(* ===== verification/TS_Prelude.thy ===== *)
theory TS_Prelude
  imports Main "HOL-Library.Sublist"
begin

text \<open>
  What every theory of the development shares: the code points the C sources name by character
  constants, the collection \<open>ts_simps\<close> of defining equations that evaluate the model, C's
  designated initialisers, and generic facts on lists and options.
\<close>

named_theorems ts_simps \<open>defining equations used to evaluate the model on concrete input\<close>

section \<open>Code points\<close>

text \<open>
  \<^verbatim>\<open>TSLexer.lookahead\<close> is an \<^verbatim>\<open>int32_t\<close>. The sources only compare it, so
  it is an \<^typ>\<open>int\<close> here; where its width matters (the serialised delimiter of the C++
  scanner) it is converted to a word. The abbreviations spell the character constants of the
  sources.
\<close>

type_synonym codepoint = int

abbreviation (input) CH_TAB :: int where "CH_TAB \<equiv> 9"
abbreviation (input) CH_LF :: int where "CH_LF \<equiv> 10"
abbreviation (input) CH_VT :: int where "CH_VT \<equiv> 11"
abbreviation (input) CH_CR :: int where "CH_CR \<equiv> 13"
abbreviation (input) CH_SPACE :: int where "CH_SPACE \<equiv> 32"
abbreviation (input) CH_DQUOTE :: int where "CH_DQUOTE \<equiv> 34"
abbreviation (input) CH_HASH :: int where "CH_HASH \<equiv> 35"
abbreviation (input) CH_QUOTE :: int where "CH_QUOTE \<equiv> 39"
abbreviation (input) CH_SLASH :: int where "CH_SLASH \<equiv> 47"
abbreviation (input) CH_BACKSLASH :: int where "CH_BACKSLASH \<equiv> 92"
abbreviation (input) CH_STAR :: int where "CH_STAR \<equiv> 42"
abbreviation (input) CH_LT :: int where "CH_LT \<equiv> 60"
abbreviation (input) CH_GT :: int where "CH_GT \<equiv> 62"
abbreviation (input) CH_UNDERSCORE :: int where "CH_UNDERSCORE \<equiv> 95"
abbreviation (input) CH_LPAREN :: int where "CH_LPAREN \<equiv> 40"
abbreviation (input) CH_RPAREN :: int where "CH_RPAREN \<equiv> 41"
abbreviation (input) CH_COLON :: int where "CH_COLON \<equiv> 58"
abbreviation (input) CH_RBRACE :: int where "CH_RBRACE \<equiv> 125"
abbreviation (input) CH_RBRACKET :: int where "CH_RBRACKET \<equiv> 93"
abbreviation (input) CH_LBRACE :: int where "CH_LBRACE \<equiv> 123"
abbreviation (input) CH_LBRACKET :: int where "CH_LBRACKET \<equiv> 91"
abbreviation (input) CH_BACKTICK :: int where "CH_BACKTICK \<equiv> 96"
abbreviation (input) CH_DOLLAR :: int where "CH_DOLLAR \<equiv> 36"
abbreviation (input) CH_COMMA :: int where "CH_COMMA \<equiv> 44"
abbreviation (input) CH_EQUALS :: int where "CH_EQUALS \<equiv> 61"
abbreviation (input) CH_SEMICOLON :: int where "CH_SEMICOLON \<equiv> 59"
abbreviation (input) CH_PERCENT :: int where "CH_PERCENT \<equiv> 37"
abbreviation (input) CH_QMARK :: int where "CH_QMARK \<equiv> 63"
abbreviation (input) CH_CARET :: int where "CH_CARET \<equiv> 94"
abbreviation (input) CH_BAR :: int where "CH_BAR \<equiv> 124"
abbreviation (input) CH_AMP :: int where "CH_AMP \<equiv> 38"
abbreviation (input) CH_DOT :: int where "CH_DOT \<equiv> 46"
abbreviation (input) CH_PLUS :: int where "CH_PLUS \<equiv> 43"
abbreviation (input) CH_MINUS :: int where "CH_MINUS \<equiv> 45"
abbreviation (input) CH_BANG :: int where "CH_BANG \<equiv> 33"
abbreviation (input) CH_a :: int where "CH_a \<equiv> 97"
abbreviation (input) CH_b :: int where "CH_b \<equiv> 98"
abbreviation (input) CH_c :: int where "CH_c \<equiv> 99"
abbreviation (input) CH_d :: int where "CH_d \<equiv> 100"
abbreviation (input) CH_e :: int where "CH_e \<equiv> 101"
abbreviation (input) CH_f :: int where "CH_f \<equiv> 102"
abbreviation (input) CH_g :: int where "CH_g \<equiv> 103"
abbreviation (input) CH_h :: int where "CH_h \<equiv> 104"
abbreviation (input) CH_i :: int where "CH_i \<equiv> 105"
abbreviation (input) CH_j :: int where "CH_j \<equiv> 106"
abbreviation (input) CH_k :: int where "CH_k \<equiv> 107"
abbreviation (input) CH_l :: int where "CH_l \<equiv> 108"
abbreviation (input) CH_m :: int where "CH_m \<equiv> 109"
abbreviation (input) CH_n :: int where "CH_n \<equiv> 110"
abbreviation (input) CH_o :: int where "CH_o \<equiv> 111"
abbreviation (input) CH_p :: int where "CH_p \<equiv> 112"
abbreviation (input) CH_q :: int where "CH_q \<equiv> 113"
abbreviation (input) CH_r :: int where "CH_r \<equiv> 114"
abbreviation (input) CH_s :: int where "CH_s \<equiv> 115"
abbreviation (input) CH_t :: int where "CH_t \<equiv> 116"
abbreviation (input) CH_u :: int where "CH_u \<equiv> 117"
abbreviation (input) CH_v :: int where "CH_v \<equiv> 118"
abbreviation (input) CH_w :: int where "CH_w \<equiv> 119"
abbreviation (input) CH_x :: int where "CH_x \<equiv> 120"
abbreviation (input) CH_y :: int where "CH_y \<equiv> 121"
abbreviation (input) CH_z :: int where "CH_z \<equiv> 122"
abbreviation (input) CH_A :: int where "CH_A \<equiv> 65"
abbreviation (input) CH_R :: int where "CH_R \<equiv> 82"
abbreviation (input) CH_Z :: int where "CH_Z \<equiv> 90"
abbreviation (input) CH_C :: int where "CH_C \<equiv> 67"
abbreviation (input) CH_D :: int where "CH_D \<equiv> 68"
abbreviation (input) CH_G :: int where "CH_G \<equiv> 71"
abbreviation (input) CH_H :: int where "CH_H \<equiv> 72"
abbreviation (input) CH_I :: int where "CH_I \<equiv> 73"
abbreviation (input) CH_J :: int where "CH_J \<equiv> 74"
abbreviation (input) CH_K :: int where "CH_K \<equiv> 75"
abbreviation (input) CH_L :: int where "CH_L \<equiv> 76"
abbreviation (input) CH_M :: int where "CH_M \<equiv> 77"
abbreviation (input) CH_N :: int where "CH_N \<equiv> 78"
abbreviation (input) CH_P :: int where "CH_P \<equiv> 80"
abbreviation (input) CH_Q :: int where "CH_Q \<equiv> 81"
abbreviation (input) CH_S :: int where "CH_S \<equiv> 83"
abbreviation (input) CH_T :: int where "CH_T \<equiv> 84"
abbreviation (input) CH_U :: int where "CH_U \<equiv> 85"
abbreviation (input) CH_V :: int where "CH_V \<equiv> 86"
abbreviation (input) CH_W :: int where "CH_W \<equiv> 87"
abbreviation (input) CH_Y :: int where "CH_Y \<equiv> 89"
abbreviation (input) CH_FF :: int where "CH_FF \<equiv> 12"
abbreviation (input) CH_2 :: int where "CH_2 \<equiv> 50"
abbreviation (input) CH_3 :: int where "CH_3 \<equiv> 51"
abbreviation (input) CH_4 :: int where "CH_4 \<equiv> 52"
abbreviation (input) CH_5 :: int where "CH_5 \<equiv> 53"
abbreviation (input) CH_6 :: int where "CH_6 \<equiv> 54"
abbreviation (input) CH_8 :: int where "CH_8 \<equiv> 56"
abbreviation (input) CH_0 :: int where "CH_0 \<equiv> 48"
abbreviation (input) CH_9 :: int where "CH_9 \<equiv> 57"
abbreviation (input) CH_X :: int where "CH_X \<equiv> 88"
abbreviation (input) CH_O :: int where "CH_O \<equiv> 79"
abbreviation (input) CH_F :: int where "CH_F \<equiv> 70"
abbreviation (input) CH_E :: int where "CH_E \<equiv> 69"
abbreviation (input) CH_B :: int where "CH_B \<equiv> 66"
abbreviation (input) CH_TILDE :: int where "CH_TILDE \<equiv> 126"
abbreviation (input) CH_AT :: int where "CH_AT \<equiv> 64"
abbreviation (input) CH_7 :: int where "CH_7 \<equiv> 55"
abbreviation (input) CH_1 :: int where "CH_1 \<equiv> 49"

section \<open>Designated initialisers\<close>

text \<open>
  A C array initialised with designators is a list of runs: each run starts at its designator and
  fills consecutive positions; positions no run covers hold the default (zero). A later run wins,
  as in C.
\<close>

fun designated_from :: "'a \<Rightarrow> (nat \<times> 'a list) list \<Rightarrow> nat \<Rightarrow> 'a" where
  "designated_from d [] i = d"
| "designated_from d ((k, xs) # rs) i =
     designated_from (if k \<le> i \<and> i < k + length xs then xs ! (i - k) else d) rs i"

text \<open>
  Most initialisers designate every element; a two-dimensional array is read through the pointer
  to its first element, row after row.
\<close>

definition array_of :: "'a \<Rightarrow> (nat \<times> 'a) list \<Rightarrow> nat \<Rightarrow> 'a" where
  "array_of d xs = designated_from d (map (\<lambda>(k, x). (k, [x])) xs)"

definition list_array :: "'a \<Rightarrow> 'a list \<Rightarrow> nat \<Rightarrow> 'a" where
  "list_array d xs = designated_from d [(0, xs)]"

definition flat_table :: "'a \<Rightarrow> nat \<Rightarrow> (nat \<times> (nat \<times> 'a) list) list \<Rightarrow> nat \<Rightarrow> 'a" where
  "flat_table d width rows i = array_of d (array_of [] rows (i div width)) (i mod width)"

lemma array_of_Nil [simp]: "array_of d [] i = d"
  by (simp add: array_of_def)

lemma array_of_Cons [simp]:
  "array_of d ((k, x) # xs) i = array_of (if i = k then x else d) xs i"
  by (auto simp: array_of_def)

lemma flat_table_nth:
  "j < width \<Longrightarrow> flat_table d width rows (i * width + j) = array_of d (array_of [] rows i) j"
  by (simp add: flat_table_def)

section \<open>Lists and options\<close>

lemma drop_eq_ConsD: "drop n xs = y # ys \<Longrightarrow> n < length xs \<and> xs ! n = y \<and> drop (Suc n) xs = ys"
  by (metis Cons_nth_drop_Suc drop_eq_Nil list.distinct(1) list.inject not_le)

lemma list_update_take_drop:
  "n < length xs \<Longrightarrow> xs[n := x] = take n xs @ x # drop (Suc n) xs"
  by (rule upd_conv_take_nth_drop)

lemma option_ex_Some_bind:
  "\<exists>y. m = Some y \<Longrightarrow> (\<And>y. m = Some y \<Longrightarrow> \<exists>z. f y = Some z) \<Longrightarrow> \<exists>z. Option.bind m f = Some z"
  by auto

end
