(* ===== verification/Array_H.thy ===== *)
theory Array_H
  imports TS_Prelude "HOL-Library.Word"
begin

text \<open>
  \<^verbatim>\<open>tree_sitter/array.h\<close>: the growable array the grammars' headers share. The block a
  pointer leads to is a list of cells, \<open>None\<close> in a cell for a value never written; the pointer
  itself may be null. Sizes, capacities and indices are 32-bit words, so every sum of the source
  wraps. An operation returns \<open>None\<close> where the code's assertion fails or where it would read or
  write outside its block (undefined in C). Allocation succeeds: the code never tests for failure.
\<close>

section \<open>Memory blocks\<close>

type_synonym 'a cells = "'a option list"

definition cells_read :: "nat \<Rightarrow> nat \<Rightarrow> 'a cells \<Rightarrow> 'a cells option" where
  "cells_read i n cs = (if i + n \<le> length cs then Some (take n (drop i cs)) else None)"

definition cells_write :: "nat \<Rightarrow> 'a cells \<Rightarrow> 'a cells \<Rightarrow> 'a cells option" where
  "cells_write i xs cs =
     (if i + length xs \<le> length cs then Some (take i cs @ xs @ drop (i + length xs) cs) else None)"

definition memmove :: "nat \<Rightarrow> nat \<Rightarrow> nat \<Rightarrow> 'a cells \<Rightarrow> 'a cells option" where
  "memmove dst src n cs = Option.bind (cells_read src n cs) (\<lambda>xs. cells_write dst xs cs)"

text \<open>A null pointer leads to no cells at all.\<close>

definition block :: "'a cells option \<Rightarrow> 'a cells" where
  "block p = (case p of None \<Rightarrow> [] | Some cs \<Rightarrow> cs)"

definition on_block :: "('a cells \<Rightarrow> 'a cells option) \<Rightarrow> 'a cells option \<Rightarrow> 'a cells option option" where
  "on_block f p = (case p of
       Some cs \<Rightarrow> map_option Some (f cs)
     | None \<Rightarrow> (case f [] of Some [] \<Rightarrow> Some None | _ \<Rightarrow> None))"

text \<open>\<^verbatim>\<open>malloc\<close> returns cells never written; \<^verbatim>\<open>realloc\<close> keeps the old ones.\<close>

definition ts_malloc :: "nat \<Rightarrow> 'a cells" where
  "ts_malloc n = replicate n None"

definition ts_realloc :: "'a cells \<Rightarrow> nat \<Rightarrow> 'a cells" where
  "ts_realloc cs n = take n cs @ replicate (n - length cs) None"

section \<open>The array and its operations\<close>

type_synonym u32 = "32 word"

record 'a Array =
  contents :: "'a cells option"
  arr_size :: u32
  arr_capacity :: u32

definition array_new :: "'a Array" where
  "array_new = \<lparr>contents = None, arr_size = 0, arr_capacity = 0\<rparr>"

definition array_init :: "'a Array \<Rightarrow> 'a Array" where
  "array_init a = a\<lparr>arr_size := 0, arr_capacity := 0, contents := None\<rparr>"

text \<open>Reading an element: the assertion, then the cell, which must have been written.\<close>

definition array_get :: "'a Array \<Rightarrow> u32 \<Rightarrow> 'a option" where
  "array_get a index =
     (if index < arr_size a
      then (case cells_read (unat index) 1 (block (contents a)) of Some [Some x] \<Rightarrow> Some x | _ \<Rightarrow> None)
      else None)"

definition array_front :: "'a Array \<Rightarrow> 'a option" where
  "array_front a = array_get a 0"

definition array_back :: "'a Array \<Rightarrow> 'a option" where
  "array_back a = array_get a (arr_size a - 1)"

definition array_clear :: "'a Array \<Rightarrow> 'a Array" where
  "array_clear a = a\<lparr>arr_size := 0\<rparr>"

definition array__reserve :: "'a cells option \<Rightarrow> u32 \<Rightarrow> u32 \<Rightarrow> 'a cells option \<times> u32" where
  "array__reserve p capacity new_capacity =
     (if new_capacity > capacity
      then (case p of
              Some cs \<Rightarrow> Some (ts_realloc cs (unat new_capacity))
            | None \<Rightarrow> Some (ts_malloc (unat new_capacity)), new_capacity)
      else (p, capacity))"

definition array_reserve :: "u32 \<Rightarrow> 'a Array \<Rightarrow> 'a Array" where
  "array_reserve new_capacity a =
     (let (p, cap) = array__reserve (contents a) (arr_capacity a) new_capacity
      in a\<lparr>contents := p, arr_capacity := cap\<rparr>)"

definition array_delete :: "'a Array \<Rightarrow> 'a Array" where
  "array_delete a = a\<lparr>contents := None, arr_size := 0, arr_capacity := 0\<rparr>"

definition array__grow :: "'a cells option \<Rightarrow> u32 \<Rightarrow> u32 \<Rightarrow> u32 \<Rightarrow> 'a cells option \<times> u32" where
  "array__grow p sz capacity count =
     (let new_size = sz + count
      in if new_size > capacity
         then (let new_capacity = capacity * 2;
                   new_capacity = (if new_capacity < 8 then 8 else new_capacity);
                   new_capacity = (if new_capacity < new_size then new_size else new_capacity)
               in array__reserve p capacity new_capacity)
         else (p, capacity))"

definition array_push :: "'a \<Rightarrow> 'a Array \<Rightarrow> 'a Array option" where
  "array_push element a =
     (let (p, cap) = array__grow (contents a) (arr_size a) (arr_capacity a) 1
      in map_option (\<lambda>p'. a\<lparr>contents := p', arr_capacity := cap, arr_size := arr_size a + 1\<rparr>)
           (on_block (cells_write (unat (arr_size a)) [Some element]) p))"

text \<open>\<open>zero\<close> is the element whose bytes are all zero.\<close>

definition array_grow_by :: "'a \<Rightarrow> u32 \<Rightarrow> 'a Array \<Rightarrow> 'a Array option" where
  "array_grow_by zero count a =
     (if count = 0 then Some a
      else let (p, cap) = array__grow (contents a) (arr_size a) (arr_capacity a) count
           in map_option (\<lambda>p'. a\<lparr>contents := p', arr_capacity := cap, arr_size := arr_size a + count\<rparr>)
                (on_block (cells_write (unat (arr_size a)) (replicate (unat count) (Some zero))) p))"

text \<open>
  \<open>elements\<close> is the array's source of new values; a null pointer means zeros. The source does not
  alias the array.
\<close>

definition array__splice ::
  "'a \<Rightarrow> 'a cells option \<Rightarrow> u32 \<Rightarrow> u32 \<Rightarrow> u32 \<Rightarrow> u32 \<Rightarrow> u32 \<Rightarrow> 'a cells option
     \<Rightarrow> ('a cells option \<times> u32 \<times> u32) option" where
  "array__splice zero p sz capacity index old_count new_count elements =
     (let new_size = sz + new_count - old_count;
          old_end = index + old_count;
          new_end = index + new_count
      in if \<not> old_end \<le> sz then None
         else let (p1, cap) = array__reserve p capacity new_size
              in Option.bind
                   (if sz > old_end
                    then on_block (memmove (unat new_end) (unat old_end) (unat (sz - old_end))) p1
                    else Some p1)
                   (\<lambda>p2. Option.bind
                      (if new_count > 0
                       then (case elements of
                               Some es \<Rightarrow>
                                 Option.bind (cells_read 0 (unat new_count) es)
                                   (\<lambda>xs. on_block (cells_write (unat index) xs) p2)
                             | None \<Rightarrow>
                                 on_block (cells_write (unat index) (replicate (unat new_count) (Some zero))) p2)
                       else Some p2)
                      (\<lambda>p3. Some (p3, sz + (new_count - old_count), cap))))"

definition array_splice :: "'a \<Rightarrow> u32 \<Rightarrow> u32 \<Rightarrow> u32 \<Rightarrow> 'a cells option \<Rightarrow> 'a Array \<Rightarrow> 'a Array option" where
  "array_splice zero index old_count new_count new_contents a =
     map_option (\<lambda>(p, sz, cap). a\<lparr>contents := p, arr_size := sz, arr_capacity := cap\<rparr>)
       (array__splice zero (contents a) (arr_size a) (arr_capacity a) index old_count new_count new_contents)"

definition array_extend :: "'a \<Rightarrow> u32 \<Rightarrow> 'a cells option \<Rightarrow> 'a Array \<Rightarrow> 'a Array option" where
  "array_extend zero count other_contents a =
     array_splice zero (arr_size a) 0 count other_contents a"

definition array_push_all :: "'a \<Rightarrow> 'a Array \<Rightarrow> 'a Array \<Rightarrow> 'a Array option" where
  "array_push_all zero other a = array_extend zero (arr_size other) (contents other) a"

definition array_insert :: "'a \<Rightarrow> u32 \<Rightarrow> 'a \<Rightarrow> 'a Array \<Rightarrow> 'a Array option" where
  "array_insert zero index element a = array_splice zero index 0 1 (Some [Some element]) a"

definition array_erase :: "u32 \<Rightarrow> 'a Array \<Rightarrow> 'a Array option" where
  "array_erase index a =
     (if index < arr_size a
      then map_option (\<lambda>p. a\<lparr>contents := p, arr_size := arr_size a - 1\<rparr>)
             (on_block (memmove (unat index) (unat (index + 1)) (unat (arr_size a - index - 1))) (contents a))
      else None)"

text \<open>The decrement comes first and wraps: on an empty array the read is out of bounds.\<close>

definition array_pop :: "'a Array \<Rightarrow> ('a \<times> 'a Array) option" where
  "array_pop a =
     (let sz = arr_size a - 1
      in case cells_read (unat sz) 1 (block (contents a)) of
           Some [Some x] \<Rightarrow> Some (x, a\<lparr>arr_size := sz\<rparr>)
         | _ \<Rightarrow> None)"

definition array_assign :: "'a Array \<Rightarrow> 'a Array \<Rightarrow> 'a Array option" where
  "array_assign other a =
     (let (p, cap) = array__reserve (contents a) (arr_capacity a) (arr_size other)
      in Option.bind (cells_read 0 (unat (arr_size other)) (block (contents other)))
           (\<lambda>xs. map_option (\<lambda>p'. a\<lparr>contents := p', arr_size := arr_size other, arr_capacity := cap\<rparr>)
                   (on_block (cells_write 0 xs) p)))"

definition array_swap :: "'a Array \<Rightarrow> 'a Array \<Rightarrow> 'a Array \<times> 'a Array" where
  "array_swap a b =
     (a\<lparr>contents := contents b, arr_size := arr_size b, arr_capacity := arr_capacity b\<rparr>,
      b\<lparr>contents := contents a, arr_size := arr_size a, arr_capacity := arr_capacity a\<rparr>)"

section \<open>What an array holds\<close>

definition array_inv :: "'a Array \<Rightarrow> bool" where
  "array_inv a \<longleftrightarrow> length (block (contents a)) = unat (arr_capacity a) \<and>
     (contents a = None \<longrightarrow> arr_capacity a = 0) \<and>
     arr_size a \<le> arr_capacity a \<and>
     (\<forall>x \<in> set (take (unat (arr_size a)) (block (contents a))). x \<noteq> None)"

definition array_list :: "'a Array \<Rightarrow> 'a list" where
  "array_list a = map the (take (unat (arr_size a)) (block (contents a)))"

lemma array_inv_size: "array_inv a \<Longrightarrow> unat (arr_size a) \<le> length (block (contents a))"
  by (simp add: array_inv_def word_le_nat_alt)

lemma length_array_list: "array_inv a \<Longrightarrow> length (array_list a) = unat (arr_size a)"
  using array_inv_size [of a] by (simp add: array_list_def)

text \<open>An array is described by its cells: the elements, then cells of no interest.\<close>

lemma array_cells:
  assumes "array_inv a"
  shows "\<exists>junk. block (contents a) = map Some (array_list a) @ junk"
proof -
  have "map (Some \<circ> the) xs = xs" if "\<forall>x \<in> set xs. x \<noteq> None" for xs :: "'a cells"
    by (rule map_idI) (use that in auto)
  then have "take (unat (arr_size a)) (block (contents a)) = map Some (array_list a)"
    using assms by (simp add: array_list_def array_inv_def)
  then show ?thesis
    by (metis append_take_drop_id)
qed

lemma array_invI:
  assumes "block p = map Some xs @ junk" and "unat sz = length xs" and "length (block p) = unat cap"
    and "p = None \<longrightarrow> cap = 0"
  shows "array_inv \<lparr>contents = p, arr_size = sz, arr_capacity = cap\<rparr> \<and>
    array_list \<lparr>contents = p, arr_size = sz, arr_capacity = cap\<rparr> = xs"
  using assms by (auto simp: array_inv_def array_list_def word_le_nat_alt o_def)

section \<open>How the primitives act on cells\<close>

lemma on_block_Some:
  assumes "f (block p) = Some cs" and "length cs = length (block p)"
  shows "\<exists>p'. on_block f p = Some p' \<and> block p' = cs \<and> (p' = None \<longleftrightarrow> p = None)"
  using assms by (cases p) (auto simp: on_block_def block_def)

lemma cells_write_Some:
  "i + length xs \<le> length cs \<Longrightarrow>
   cells_write i xs cs = Some (take i cs @ xs @ drop (i + length xs) cs)"
  by (simp add: cells_write_def)

lemma cells_read_Some: "i + n \<le> length cs \<Longrightarrow> cells_read i n cs = Some (take n (drop i cs))"
  by (simp add: cells_read_def)

lemma memmove_Some:
  "dst + n \<le> length cs \<Longrightarrow> src + n \<le> length cs \<Longrightarrow>
   memmove dst src n cs = Some (take dst cs @ take n (drop src cs) @ drop (dst + n) cs)"
  by (simp add: memmove_def cells_read_Some cells_write_def min_absorb2)

lemma on_block_write:
  assumes "i + length es \<le> length (block p)"
  shows "\<exists>p'. on_block (cells_write i es) p = Some p' \<and>
    block p' = take i (block p) @ es @ drop (i + length es) (block p) \<and> (p' = None \<longleftrightarrow> p = None)"
  by (rule on_block_Some) (use assms in \<open>simp_all add: cells_write_Some\<close>)

lemma on_block_memmove:
  assumes "dst + n \<le> length (block p)" and "src + n \<le> length (block p)"
  shows "\<exists>p'. on_block (memmove dst src n) p = Some p' \<and>
    block p' = take dst (block p) @ take n (drop src (block p)) @ drop (dst + n) (block p) \<and>
    (p' = None \<longleftrightarrow> p = None)"
  by (rule on_block_Some) (use assms in \<open>auto simp: memmove_Some min_def\<close>)

lemma reserve_cells:
  assumes "length (block p) = unat cap" and "p = None \<longrightarrow> cap = 0" and "array__reserve p cap n = (p', cap')"
  shows "\<exists>junk. block p' = block p @ junk \<and> length (block p') = unat cap' \<and>
    (p' = None \<longrightarrow> cap' = 0) \<and> cap' = max cap n"
proof (cases "n > cap")
  case True
  then have "unat cap \<le> unat n"
    by (simp add: word_less_nat_alt)
  with True assms show ?thesis
    by (cases p) (auto simp: array__reserve_def block_def ts_realloc_def ts_malloc_def max_def)
next
  case False
  with assms show ?thesis
    by (auto simp: array__reserve_def max_def)
qed

lemma grow_cells:
  assumes "length (block p) = unat cap" and "p = None \<longrightarrow> cap = 0" and "array__grow p sz cap count = (p', cap')"
  shows "\<exists>junk. block p' = block p @ junk \<and> length (block p') = unat cap' \<and>
    (p' = None \<longrightarrow> cap' = 0) \<and> sz + count \<le> cap'"
proof (cases "sz + count > cap")
  case False
  with assms show ?thesis
    by (auto simp: array__grow_def)
next
  case True
  define cap2 where "cap2 = (if cap * 2 < 8 then 8 else cap * 2)"
  define n where "n = (if cap2 < sz + count then sz + count else cap2)"
  have "array__reserve p cap n = (p', cap')"
    using assms(3) True by (simp add: array__grow_def Let_def n_def cap2_def split: if_splits)
  from reserve_cells [OF assms(1,2) this] obtain junk where
    "block p' = block p @ junk" "length (block p') = unat cap'" "p' = None \<longrightarrow> cap' = 0" "cap' = max cap n"
    by blast
  moreover have "sz + count \<le> n"
    by (auto simp: n_def)
  ultimately show ?thesis
    by (auto simp: le_max_iff_disj)
qed

lemma unat_add_no_wrap: "unat a + unat b < 2 ^ 32 \<Longrightarrow> unat (a + b) = unat a + unat b" for a b :: u32
  by (simp add: unat_word_ariths)

lemma unat_sub_le: "b \<le> a \<Longrightarrow> unat (a - b) = unat a - unat b" for a b :: u32
  by (simp add: unat_sub word_le_nat_alt)

section \<open>The operations refine lists\<close>

lemma array_new_refines:
  "array_inv (array_new :: 'a Array) \<and> array_list (array_new :: 'a Array) = []"
  by (simp add: array_new_def array_inv_def array_list_def block_def)

lemma array_get_refines:
  assumes "array_inv a"
  shows "array_get a i = (if unat i < length (array_list a) then Some (array_list a ! unat i) else None)"
proof -
  obtain junk where cells: "block (contents a) = map Some (array_list a) @ junk"
    using array_cells [OF assms] by blast
  show ?thesis
    using length_array_list [OF assms]
    by (simp add: array_get_def word_less_nat_alt cells cells_read_def take_Suc_conv_app_nth
        nth_append take_Suc hd_drop_conv_nth)
qed

lemma array_push_refines:
  assumes "array_inv a" and "length (array_list a) < 2 ^ 32 - 1"
  shows "\<exists>a'. array_push x a = Some a' \<and> array_inv a' \<and> array_list a' = array_list a @ [x]"
proof -
  let ?xs = "array_list a" and ?sz = "arr_size a"
  obtain junk where cells: "block (contents a) = map Some ?xs @ junk"
    using array_cells [OF assms(1)] by blast
  have sz: "unat ?sz = length ?xs" "unat (?sz + 1) = Suc (length ?xs)"
    using assms length_array_list [OF assms(1)] by (simp_all add: unat_word_ariths)
  obtain p cap where grow: "array__grow (contents a) ?sz (arr_capacity a) 1 = (p, cap)"
    by fastforce
  obtain junk' where p: "block p = map Some ?xs @ junk'" "length (block p) = unat cap"
      "p = None \<longrightarrow> cap = 0" "?sz + 1 \<le> cap"
    using grow_cells [OF _ _ grow] assms(1) cells by (auto simp: array_inv_def)
  have room: "Suc (length ?xs) \<le> length (block p)"
    using p(2,4) sz by (simp add: word_le_nat_alt)
  obtain p' where p': "on_block (cells_write (length ?xs) [Some x]) p = Some p'"
      "block p' = map Some (?xs @ [x]) @ drop 1 junk'" "p' = None \<longleftrightarrow> p = None"
    using on_block_write [of "length ?xs" "[Some x]" p] room p(1) by auto
  moreover have "length (block p') = unat cap"
    using p p' room by simp
  moreover have push: "array_push x a = Some \<lparr>contents = p', arr_size = ?sz + 1, arr_capacity = cap\<rparr>"
    using grow p'(1) sz by (cases a) (simp add: array_push_def)
  ultimately show ?thesis
    using array_invI [of p' "?xs @ [x]" "drop 1 junk'" "?sz + 1" cap] p(3) sz by auto
qed

lemma unat_splice_size:
  fixes sz old_count new_count :: u32
  assumes "unat old_count \<le> unat sz" and "unat sz - unat old_count + unat new_count < 2 ^ 32"
  shows "unat (sz + new_count - old_count) = unat sz - unat old_count + unat new_count"
    and "sz + (new_count - old_count) = sz + new_count - old_count"
proof -
  have "unat (sz - old_count) = unat sz - unat old_count"
    using assms(1) by (simp add: unat_sub_le word_le_nat_alt)
  then have "unat (sz - old_count + new_count) = unat sz - unat old_count + unat new_count"
    using assms(2) by (subst unat_add_no_wrap) simp_all
  then show "unat (sz + new_count - old_count) = unat sz - unat old_count + unat new_count"
    by (simp add: algebra_simps)
qed (simp add: algebra_simps)

text \<open>What the source of a splice holds: the first \<open>count\<close> cells, or zeros from a null pointer.\<close>

definition source_elems :: "'a \<Rightarrow> 'a cells option \<Rightarrow> u32 \<Rightarrow> 'a list \<Rightarrow> bool" where
  "source_elems zero elements count ys \<longleftrightarrow> length ys = unat count \<and>
     (case elements of
        Some es \<Rightarrow> cells_read 0 (unat count) es = Some (map Some ys)
      | None \<Rightarrow> ys = replicate (unat count) zero)"

lemma write_source:
  assumes "source_elems zero elements count ys" and "i + unat count \<le> length (block p)"
  shows "\<exists>p'. (if count > 0
       then (case elements of
               Some es \<Rightarrow> Option.bind (cells_read 0 (unat count) es) (\<lambda>xs. on_block (cells_write i xs) p)
             | None \<Rightarrow> on_block (cells_write i (replicate (unat count) (Some zero))) p)
       else Some p) = Some p' \<and>
    block p' = take i (block p) @ map Some ys @ drop (i + unat count) (block p) \<and> (p' = None \<longleftrightarrow> p = None)"
proof (cases "count > 0")
  case True
  then show ?thesis
    using assms on_block_write [of i "map Some ys" p]
    by (auto simp: source_elems_def split: option.splits)
next
  case False
  then have "count = 0" by (simp add: word_gt_0)
  then show ?thesis
    using assms by (simp add: source_elems_def)
qed

lemma array_splice_refines:
  assumes inv: "array_inv a"
    and range: "unat index + unat old_count \<le> length (array_list a)"
    and fits: "length (array_list a) - unat old_count + unat new_count < 2 ^ 32"
    and source: "source_elems zero elements new_count ys"
  shows "\<exists>a'. array_splice zero index old_count new_count elements a = Some a' \<and> array_inv a' \<and>
    array_list a' = take (unat index) (array_list a) @ ys @ drop (unat index + unat old_count) (array_list a)"
proof -
  let ?xs = "array_list a" and ?i = "unat index" and ?o = "unat old_count" and ?n = "unat new_count"
  let ?sz = "arr_size a" and ?old_end = "index + old_count" and ?new_end = "index + new_count"
  obtain junk where cells: "block (contents a) = map Some ?xs @ junk"
    using array_cells [OF inv] by blast
  have sz: "unat ?sz = length ?xs"
    using length_array_list [OF inv] by simp
  have len32: "length ?xs < 2 ^ 32"
    unfolding sz [symmetric] by (rule order_less_le_trans [OF unsigned_less]) simp
  have old_end: "unat ?old_end = ?i + ?o"
    using range len32 by (intro unat_add_no_wrap) simp
  have new_end: "unat ?new_end = ?i + ?n"
    using range fits by (intro unat_add_no_wrap) simp
  have new_size: "unat (?sz + new_count - old_count) = length ?xs - ?o + ?n"
      "?sz + (new_count - old_count) = ?sz + new_count - old_count"
    using unat_splice_size [of old_count ?sz new_count] range fits sz by simp_all
  obtain p cap where reserve: "array__reserve (contents a) (arr_capacity a) (?sz + new_count - old_count) = (p, cap)"
    by fastforce
  obtain junk' where p: "block p = map Some ?xs @ junk'" "length (block p) = unat cap"
      "p = None \<longrightarrow> cap = 0" "cap = max (arr_capacity a) (?sz + new_count - old_count)"
    using reserve_cells [OF _ _ reserve] inv cells by (auto simp: array_inv_def)
  have room: "length ?xs - ?o + ?n \<le> length (block p)" "length ?xs \<le> length (block p)"
    using p new_size(1) by (auto simp: max_def word_le_nat_alt split: if_splits)
  have tail_len: "unat (?sz - ?old_end) = length ?xs - (?i + ?o)"
    using old_end sz range by (simp add: unat_sub_le word_le_nat_alt)
  obtain q where q: "(if ?sz > ?old_end then on_block (memmove (unat ?new_end) (unat ?old_end) (unat (?sz - ?old_end))) p
        else Some p) = Some q"
      "length (block q) = length (block p)" "q = None \<longleftrightarrow> p = None"
      "\<exists>j. block q = take (?i + ?n) (block p) @ map Some (drop (?i + ?o) ?xs) @ j"
  proof (cases "?sz > ?old_end")
    case True
    let ?m = "length ?xs - (?i + ?o)"
    have fit: "?i + ?n + ?m \<le> length (block p)" "?i + ?o + ?m \<le> length (block p)"
      using room range by simp_all
    obtain q where q: "on_block (memmove (?i + ?n) (?i + ?o) ?m) p = Some q"
        "block q = take (?i + ?n) (block p) @ take ?m (drop (?i + ?o) (block p)) @ drop (?i + ?n + ?m) (block p)"
        "q = None \<longleftrightarrow> p = None"
      using on_block_memmove [OF fit] by blast
    have "length (block q) = length (block p)"
      using q(2) fit by simp
    moreover have "take ?m (drop (?i + ?o) (block p)) = map Some (drop (?i + ?o) ?xs)"
      using range by (simp add: p(1) drop_map)
    ultimately show ?thesis
      using that [of q] q True by (simp add: new_end old_end tail_len)
  next
    case False
    then have "length ?xs = ?i + ?o"
      using old_end sz range by (simp add: word_less_nat_alt)
    with False room show ?thesis
      using that [of p] by simp (metis append_take_drop_id)
  qed
  then obtain j where j: "block q = take (?i + ?n) (block p) @ map Some (drop (?i + ?o) ?xs) @ j"
    by blast
  have "?i + ?n \<le> length (block q)"
    using q(2) room range by simp
  from write_source [OF source this] obtain r where r:
      "(if new_count > 0
        then (case elements of
               Some es \<Rightarrow> Option.bind (cells_read 0 ?n es) (\<lambda>xs. on_block (cells_write ?i xs) q)
             | None \<Rightarrow> on_block (cells_write ?i (replicate ?n (Some zero))) q)
        else Some q) = Some r"
      "block r = take ?i (block q) @ map Some ys @ drop (?i + ?n) (block q)" "r = None \<longleftrightarrow> q = None"
    by blast
  have elems: "block r = map Some (take ?i ?xs @ ys @ drop (?i + ?o) ?xs) @ j"
    using r(2) j room range p(1) by (simp add: take_map min_def)
  have "length (block r) = length (block q)"
    using r(2) source \<open>?i + ?n \<le> length (block q)\<close> by (simp add: source_elems_def)
  then have r_len: "length (block r) = unat cap"
    using q(2) p(2) by simp
  have ok: "?old_end \<le> ?sz"
    using old_end range sz by (simp add: word_le_nat_alt)
  have "array__splice zero (contents a) ?sz (arr_capacity a) index old_count new_count elements =
      Some (r, ?sz + new_count - old_count, cap)"
    by (simp only: array__splice_def Let_def reserve prod.case ok not_True_eq_False if_False q(1)
        Option.bind.simps r(1) new_size(2))
  then have splice: "array_splice zero index old_count new_count elements a =
      Some \<lparr>contents = r, arr_size = ?sz + new_count - old_count, arr_capacity = cap\<rparr>"
    by (cases a) (simp add: array_splice_def)
  show ?thesis
    unfolding splice
    using array_invI [OF elems, of "?sz + new_count - old_count" cap] r_len p(3) q(3) r(3) new_size(1)
      source range by (auto simp: source_elems_def)
qed

lemma source_of_array:
  assumes "array_inv b"
  shows "source_elems zero (contents b) (arr_size b) (array_list b)"
proof -
  obtain junk where cells: "block (contents b) = map Some (array_list b) @ junk"
    using array_cells [OF assms] by blast
  have sz: "unat (arr_size b) = length (array_list b)"
    using length_array_list [OF assms] by simp
  show ?thesis
  proof (cases "contents b")
    case None
    then have "array_list b = []" "arr_size b = 0"
      using cells sz by (simp_all add: block_def unat_eq_0)
    with None show ?thesis by (simp add: source_elems_def)
  next
    case (Some cs)
    with cells sz show ?thesis by (simp add: source_elems_def block_def cells_read_def)
  qed
qed

lemma array_insert_refines:
  assumes "array_inv a" and "unat index \<le> length (array_list a)" and "length (array_list a) < 2 ^ 32 - 1"
  shows "\<exists>a'. array_insert zero index x a = Some a' \<and> array_inv a' \<and>
    array_list a' = take (unat index) (array_list a) @ x # drop (unat index) (array_list a)"
  using array_splice_refines [OF assms(1), of index 0 1 zero "Some [Some x]" "[x]"] assms(2,3)
  by (simp add: array_insert_def source_elems_def cells_read_def)

lemma array_extend_refines:
  assumes "array_inv a" and "length (array_list a) + unat count < 2 ^ 32"
    and "source_elems zero elements count ys"
  shows "\<exists>a'. array_extend zero count elements a = Some a' \<and> array_inv a' \<and> array_list a' = array_list a @ ys"
  using array_splice_refines [OF assms(1), of "arr_size a" 0 count zero elements ys] assms(2,3)
    length_array_list [OF assms(1)]
  by (simp add: array_extend_def)

lemma array_push_all_refines:
  assumes "array_inv a" and "array_inv b" and "length (array_list a) + length (array_list b) < 2 ^ 32"
  shows "\<exists>a'. array_push_all zero b a = Some a' \<and> array_inv a' \<and> array_list a' = array_list a @ array_list b"
  using array_extend_refines [OF assms(1) _ source_of_array [OF assms(2)]] assms(3)
    length_array_list [OF assms(2)]
  by (simp add: array_push_all_def)

lemma array_erase_refines:
  assumes inv: "array_inv a" and index: "unat index < length (array_list a)"
  shows "\<exists>a'. array_erase index a = Some a' \<and> array_inv a' \<and>
    array_list a' = take (unat index) (array_list a) @ drop (Suc (unat index)) (array_list a)"
proof -
  let ?xs = "array_list a" and ?i = "unat index"
  let ?m = "length ?xs - Suc ?i"
  obtain junk where cells: "block (contents a) = map Some ?xs @ junk"
    using array_cells [OF inv] by blast
  have sz: "unat (arr_size a) = length ?xs"
    using length_array_list [OF inv] by simp
  have len32: "length ?xs < 2 ^ 32"
    unfolding sz [symmetric] by (rule order_less_le_trans [OF unsigned_less]) simp
  have lt: "index < arr_size a"
    using index sz by (simp add: word_less_nat_alt)
  have nums: "unat (index + 1) = Suc ?i" "unat (arr_size a - index - 1) = ?m" "unat (arr_size a - 1) = length ?xs - 1"
  proof -
    show "unat (index + 1) = Suc ?i"
      using index len32 by (subst unat_add_no_wrap) simp_all
    have "unat (arr_size a - index) = length ?xs - ?i"
      using lt sz by (simp add: unat_sub_le)
    then show "unat (arr_size a - index - 1) = ?m"
      using index by (subst unat_sub_le) (simp_all add: word_le_nat_alt)
    show "unat (arr_size a - 1) = length ?xs - 1"
      using index sz by (subst unat_sub_le) (simp_all add: word_le_nat_alt)
  qed
  have fit: "?i + ?m \<le> length (block (contents a))" "Suc ?i + ?m \<le> length (block (contents a))"
    using index by (simp_all add: cells)
  obtain p where p: "on_block (memmove ?i (Suc ?i) ?m) (contents a) = Some p"
      "block p = take ?i (block (contents a)) @ take ?m (drop (Suc ?i) (block (contents a))) @
         drop (?i + ?m) (block (contents a))" "p = None \<longleftrightarrow> contents a = None"
    using on_block_memmove [OF fit] by (elim exE conjE)
  have elems: "block p = map Some (take ?i ?xs @ drop (Suc ?i) ?xs) @ drop (?i + ?m) (block (contents a))"
    unfolding p(2) using index by (simp add: cells take_map drop_map)
  have "length (block p) = unat (arr_capacity a)"
    using p(2) fit inv by (simp add: array_inv_def)
  moreover have "array_erase index a = Some \<lparr>contents = p, arr_size = arr_size a - 1, arr_capacity = arr_capacity a\<rparr>"
  proof -
    have "array_erase index a = Some (a\<lparr>contents := p, arr_size := arr_size a - 1\<rparr>)"
      by (simp only: array_erase_def lt if_True nums p(1) option.map)
    then show ?thesis by (cases a) simp
  qed
  moreover have "unat (arr_size a - 1) = length (take ?i ?xs @ drop (Suc ?i) ?xs)"
    using nums(3) index by simp
  moreover have "p = None \<longrightarrow> arr_capacity a = 0"
    using p(3) inv by (simp add: array_inv_def)
  ultimately show ?thesis
    using array_invI [OF elems] by blast
qed

lemma array_pop_refines:
  assumes inv: "array_inv a" and "array_list a \<noteq> []"
  shows "\<exists>a'. array_pop a = Some (last (array_list a), a') \<and> array_inv a' \<and> array_list a' = butlast (array_list a)"
proof -
  let ?xs = "array_list a" and ?n = "length (array_list a) - 1"
  obtain junk where cells: "block (contents a) = map Some ?xs @ junk"
    using array_cells [OF inv] by blast
  have sz: "unat (arr_size a) = length ?xs"
    using length_array_list [OF inv] by simp
  then have n: "unat (arr_size a - 1) = ?n"
    using assms(2) by (subst unat_sub_le) (simp_all add: word_le_nat_alt Suc_leI)
  have elems: "block (contents a) = map Some (butlast ?xs) @ Some (last ?xs) # junk"
    using assms(2) by (simp add: cells) (metis append_butlast_last_id list.simps(8,9) map_append append_assoc append_Cons append_Nil)
  have last: "cells_read ?n 1 (block (contents a)) = Some [Some (last ?xs)]"
    by (simp add: elems cells_read_def)
  have "array_pop a = Some (last ?xs, \<lparr>contents = contents a, arr_size = arr_size a - 1, arr_capacity = arr_capacity a\<rparr>)"
    using last n by (cases a) (simp add: array_pop_def)
  then show ?thesis
    using array_invI [OF elems, of "arr_size a - 1" "arr_capacity a"] n inv by (simp add: array_inv_def)
qed

text \<open>Popping an empty array reads outside its block.\<close>

lemma array_pop_empty:
  assumes "array_inv a" and "array_list a = []"
  shows "array_pop a = None"
proof -
  have "arr_size a = 0"
    using length_array_list [OF assms(1)] assms(2) by (simp add: unat_eq_0)
  moreover have "length (block (contents a)) < 2 ^ 32"
    using assms(1) by (simp add: array_inv_def) (rule order_less_le_trans [OF unsigned_less], simp)
  ultimately show ?thesis
    by (simp add: array_pop_def cells_read_def unsigned_minus_1_eq_mask mask_eq_exp_minus_1 Let_def)
qed

lemma array_grow_by_refines:
  assumes inv: "array_inv a" and "length (array_list a) + unat count < 2 ^ 32"
  shows "\<exists>a'. array_grow_by zero count a = Some a' \<and> array_inv a' \<and>
    array_list a' = array_list a @ replicate (unat count) zero"
proof (cases "count = 0")
  case True
  then show ?thesis
    using inv by (simp add: array_grow_by_def)
next
  case False
  let ?xs = "array_list a" and ?sz = "arr_size a" and ?n = "unat count"
  obtain junk where cells: "block (contents a) = map Some ?xs @ junk"
    using array_cells [OF inv] by blast
  have sz: "unat ?sz = length ?xs" "unat (?sz + count) = length ?xs + ?n"
    using assms length_array_list [OF inv] by (simp_all add: unat_add_no_wrap)
  obtain p cap where grow: "array__grow (contents a) ?sz (arr_capacity a) count = (p, cap)"
    by fastforce
  obtain junk' where p: "block p = map Some ?xs @ junk'" "length (block p) = unat cap"
      "p = None \<longrightarrow> cap = 0" "?sz + count \<le> cap"
    using grow_cells [OF _ _ grow] inv cells by (auto simp: array_inv_def)
  have room: "length ?xs + ?n \<le> length (block p)"
    using p(2,4) sz by (simp add: word_le_nat_alt)
  obtain p' where p': "on_block (cells_write (length ?xs) (replicate ?n (Some zero))) p = Some p'"
      "block p' = map Some (?xs @ replicate ?n zero) @ drop ?n junk'" "p' = None \<longleftrightarrow> p = None"
    using on_block_write [of "length ?xs" "replicate ?n (Some zero)" p] room p(1) by auto
  moreover have "length (block p') = unat cap"
    using p p' room by simp
  moreover have "array_grow_by zero count a = Some \<lparr>contents = p', arr_size = ?sz + count, arr_capacity = cap\<rparr>"
    using grow p'(1) sz False by (cases a) (simp add: array_grow_by_def)
  ultimately show ?thesis
    using array_invI [of p' "?xs @ replicate ?n zero" "drop ?n junk'" "?sz + count" cap] p(3) sz by auto
qed

lemma array_assign_refines:
  assumes inv: "array_inv a" and other: "array_inv b"
  shows "\<exists>a'. array_assign b a = Some a' \<and> array_inv a' \<and> array_list a' = array_list b"
proof -
  let ?ys = "array_list b"
  obtain junk where cells: "block (contents b) = map Some ?ys @ junk"
    using array_cells [OF other] by blast
  have sz: "unat (arr_size b) = length ?ys"
    using length_array_list [OF other] by simp
  obtain p cap where reserve: "array__reserve (contents a) (arr_capacity a) (arr_size b) = (p, cap)"
    by fastforce
  obtain junk' where p: "length (block p) = unat cap" "p = None \<longrightarrow> cap = 0" "cap = max (arr_capacity a) (arr_size b)"
    using reserve_cells [OF _ _ reserve] inv by (auto simp: array_inv_def)
  have room: "0 + length (map Some ?ys) \<le> length (block p)"
    using p sz by (auto simp: max_def word_le_nat_alt split: if_splits)
  obtain p' where p': "on_block (cells_write 0 (map Some ?ys)) p = Some p'"
      "block p' = map Some ?ys @ drop (length ?ys) (block p)" "p' = None \<longleftrightarrow> p = None"
    using on_block_write [OF room] by auto
  have "array_assign b a = Some \<lparr>contents = p', arr_size = arr_size b, arr_capacity = cap\<rparr>"
    using reserve p'(1) sz by (cases a) (simp add: array_assign_def cells cells_read_def)
  moreover have "length (block p') = unat cap"
    using p' p room by simp
  ultimately show ?thesis
    using array_invI [OF p'(2) sz, of cap] p(2) p'(3) by simp
qed

lemma array_reserve_refines:
  assumes "array_inv a"
  shows "array_inv (array_reserve n a) \<and> array_list (array_reserve n a) = array_list a \<and>
    arr_capacity (array_reserve n a) = max (arr_capacity a) n"
proof -
  obtain junk where cells: "block (contents a) = map Some (array_list a) @ junk"
    using array_cells [OF assms] by blast
  obtain p cap where reserve: "array__reserve (contents a) (arr_capacity a) n = (p, cap)"
    by fastforce
  obtain junk' where p: "block p = map Some (array_list a) @ junk'" "length (block p) = unat cap"
      "p = None \<longrightarrow> cap = 0" "cap = max (arr_capacity a) n"
    using reserve_cells [OF _ _ reserve] assms cells by (auto simp: array_inv_def)
  have "array_reserve n a = \<lparr>contents = p, arr_size = arr_size a, arr_capacity = cap\<rparr>"
    using reserve by (cases a) (simp add: array_reserve_def)
  then show ?thesis
    using array_invI [OF p(1) _ p(2,3), of "arr_size a"] length_array_list [OF assms] p(4) by simp
qed

lemma array_clear_refines:
  "array_inv a \<Longrightarrow> array_inv (array_clear a) \<and> array_list (array_clear a) = []"
  by (simp add: array_clear_def array_inv_def array_list_def)

lemma array_delete_refines: "array_inv (array_delete a) \<and> array_list (array_delete a) = []"
  by (simp add: array_delete_def array_inv_def array_list_def block_def)

lemma array_swap_refines:
  "array_swap a b = (a', b') \<Longrightarrow> array_inv a \<Longrightarrow> array_inv b \<Longrightarrow>
   array_inv a' \<and> array_inv b' \<and> array_list a' = array_list b \<and> array_list b' = array_list a"
  by (auto simp: array_swap_def array_inv_def array_list_def)

section \<open>Sorted arrays\<close>

text \<open>
  \<^verbatim>\<open>_array__search_sorted\<close>. The indices stay below the size, so nothing wraps. The
  comparison may itself be undefined: \<^verbatim>\<open>_compare_int\<close> subtracts two signed 32-bit
  numbers, which overflows when they are too far apart.
\<close>

definition cell_at :: "'a cells \<Rightarrow> nat \<Rightarrow> 'a option" where
  "cell_at cs i = (if i < length cs then cs ! i else None)"

definition compare_int :: "u32 \<Rightarrow> u32 \<Rightarrow> int option" where
  "compare_int a b =
     (let d = sint a - sint b in if - (2 ^ 31) \<le> d \<and> d < 2 ^ 31 then Some d else None)"

function search_loop :: "('a \<Rightarrow> int option) \<Rightarrow> 'a cells \<Rightarrow> nat \<Rightarrow> nat \<Rightarrow> nat option" where
  "search_loop compare cs index sz =
     (if sz > 1
      then (let half_size = sz div 2; mid_index = index + half_size
            in Option.bind (cell_at cs mid_index)
                 (\<lambda>x. Option.bind (compare x)
                    (\<lambda>comparison. search_loop compare cs
                       (if comparison \<le> 0 then mid_index else index) (sz - half_size))))
      else Some index)"
  by pat_completeness auto
termination
  by (relation "measure (\<lambda>(compare, cs, index, sz). sz)") auto

definition array__search_sorted :: "('a \<Rightarrow> int option) \<Rightarrow> 'a Array \<Rightarrow> (nat \<times> bool) option" where
  "array__search_sorted compare a =
     (let cs = block (contents a); sz = unat (arr_size a)
      in if sz = 0 then Some (0, False)
         else Option.bind (search_loop compare cs 0 sz)
           (\<lambda>index. Option.bind (cell_at cs index)
              (\<lambda>x. Option.bind (compare x)
                 (\<lambda>comparison. Some
                    (if comparison = 0 then (index, True)
                     else if comparison < 0 then (index + 1, False)
                     else (index, False))))))"

definition array_search_sorted_with ::
  "('a \<Rightarrow> 'k \<Rightarrow> int option) \<Rightarrow> 'k \<Rightarrow> 'a Array \<Rightarrow> (nat \<times> bool) option" where
  "array_search_sorted_with compare needle a = array__search_sorted (\<lambda>x. compare x needle) a"

definition array_search_sorted_by :: "('a \<Rightarrow> u32) \<Rightarrow> u32 \<Rightarrow> 'a Array \<Rightarrow> (nat \<times> bool) option" where
  "array_search_sorted_by field needle a =
     array__search_sorted (\<lambda>x. compare_int (field x) needle) a"

definition array_insert_sorted_with ::
  "'a \<Rightarrow> ('a \<Rightarrow> 'a \<Rightarrow> int option) \<Rightarrow> 'a \<Rightarrow> 'a Array \<Rightarrow> 'a Array option" where
  "array_insert_sorted_with zero compare v a =
     Option.bind (array_search_sorted_with compare v a)
       (\<lambda>(index, exists). if exists then Some a else array_insert zero (of_nat index) v a)"

definition array_insert_sorted_by :: "'a \<Rightarrow> ('a \<Rightarrow> u32) \<Rightarrow> 'a \<Rightarrow> 'a Array \<Rightarrow> 'a Array option" where
  "array_insert_sorted_by zero field v a =
     Option.bind (array_search_sorted_by field (field v) a)
       (\<lambda>(index, exists). if exists then Some a else array_insert zero (of_nat index) v a)"

declare search_loop.simps [simp del]

text \<open>The order the search needs: the comparison's sign only rises along the list.\<close>

definition signs_sorted :: "('a \<Rightarrow> int) \<Rightarrow> 'a list \<Rightarrow> bool" where
  "signs_sorted f xs \<longleftrightarrow> sorted_wrt (\<lambda>x y. (0 \<le> f x \<longrightarrow> 0 \<le> f y) \<and> (0 < f x \<longrightarrow> 0 < f y)) xs"

lemma signs_sorted_step:
  assumes "signs_sorted f xs" and "i < j" and "j < length xs"
  shows "(0 \<le> f (xs ! i) \<longrightarrow> 0 \<le> f (xs ! j)) \<and> (0 < f (xs ! i) \<longrightarrow> 0 < f (xs ! j))"
  using assms(1) unfolding signs_sorted_def by (rule sorted_wrt_nth_less [OF _ assms(2,3)])

lemma signs_sortedD:
  assumes "signs_sorted f xs" and "i \<le> j" and "j < length xs"
  shows "0 \<le> f (xs ! i) \<Longrightarrow> 0 \<le> f (xs ! j)" and "0 < f (xs ! i) \<Longrightarrow> 0 < f (xs ! j)"
  using signs_sorted_step [OF assms(1) _ assms(3), of i] assms(2) by (auto simp: le_less)

lemma search_loop_correct:
  assumes "\<forall>x \<in> set xs. compare x = Some (f x)" and "signs_sorted f xs"
  shows "0 < sz \<Longrightarrow> index + sz \<le> length xs \<Longrightarrow> (index = 0 \<or> f (xs ! index) \<le> 0) \<Longrightarrow>
    (\<forall>j. index + sz \<le> j \<longrightarrow> j < length xs \<longrightarrow> 0 < f (xs ! j)) \<Longrightarrow>
    \<exists>i. search_loop compare (map Some xs @ junk) index sz = Some i \<and> i < length xs \<and>
      (i = 0 \<or> f (xs ! i) \<le> 0) \<and> (\<forall>j. i < j \<longrightarrow> j < length xs \<longrightarrow> 0 < f (xs ! j))"
proof (induction sz arbitrary: index rule: less_induct)
  case (less sz)
  let ?half = "sz div 2" and ?mid = "index + sz div 2"
  note unfold = search_loop.simps [of compare "map Some xs @ junk" index sz]
  show ?case
  proof (cases "sz > 1")
    case False
    with less.prems have "sz = 1" by simp
    moreover have "search_loop compare (map Some xs @ junk) index sz = Some index"
      using False by (simp add: unfold)
    ultimately show ?thesis
      using less.prems by auto
  next
    case True
    then have half: "0 < ?half" "?half < sz" by auto
    have mid: "?mid < length xs"
      using less.prems(2) half by simp
    have step: "search_loop compare (map Some xs @ junk) index sz =
        search_loop compare (map Some xs @ junk) (if f (xs ! ?mid) \<le> 0 then ?mid else index) (sz - ?half)"
      using True mid assms(1) by (simp add: unfold Let_def cell_at_def nth_append)
    show ?thesis
    proof (cases "f (xs ! ?mid) \<le> 0")
      case le: True
      have "\<forall>j. ?mid + (sz - ?half) \<le> j \<longrightarrow> j < length xs \<longrightarrow> 0 < f (xs ! j)"
        using less.prems(4) half by simp
      then show ?thesis
        unfolding step using less.IH [of "sz - ?half" ?mid] less.prems(2) half le by simp
    next
      case gt: False
      have "\<forall>j. index + (sz - ?half) \<le> j \<longrightarrow> j < length xs \<longrightarrow> 0 < f (xs ! j)"
      proof (intro allI impI)
        fix j assume j: "index + (sz - ?half) \<le> j" "j < length xs"
        then have "?mid \<le> j" by simp
        then show "0 < f (xs ! j)"
          using signs_sortedD(2) [OF assms(2) _ j(2)] gt by simp
      qed
      then show ?thesis
        unfolding step using less.IH [of "sz - ?half" index] less.prems(2,3) half gt by simp
    qed
  qed
qed

text \<open>The result of a search: where an equal element is, or where it would have to go.\<close>

definition search_result :: "('a \<Rightarrow> int) \<Rightarrow> 'a list \<Rightarrow> nat \<Rightarrow> bool \<Rightarrow> bool" where
  "search_result f xs i found \<longleftrightarrow>
     (if found then i < length xs \<and> f (xs ! i) = 0
      else i \<le> length xs \<and> (\<forall>x \<in> set (take i xs). f x < 0) \<and> (\<forall>x \<in> set (drop i xs). 0 < f x))"

lemma search_resultI:
  assumes "i \<le> length xs" and "\<And>j. j < i \<Longrightarrow> f (xs ! j) < 0"
    and "\<And>j. i \<le> j \<Longrightarrow> j < length xs \<Longrightarrow> 0 < f (xs ! j)"
  shows "search_result f xs i False"
  using assms by (auto simp: search_result_def in_set_conv_nth)

lemma array__search_sorted_correct:
  assumes inv: "array_inv a" and compare: "\<forall>x \<in> set (array_list a). compare x = Some (f x)"
    and sorted: "signs_sorted f (array_list a)"
  shows "\<exists>i found. array__search_sorted compare a = Some (i, found) \<and> search_result f (array_list a) i found"
proof -
  let ?xs = "array_list a"
  obtain junk where cells: "block (contents a) = map Some ?xs @ junk"
    using array_cells [OF inv] by blast
  have sz: "unat (arr_size a) = length ?xs"
    using length_array_list [OF inv] by simp
  show ?thesis
  proof (cases "?xs = []")
    case True
    then have "array__search_sorted compare a = Some (0, False)"
      using sz by (simp add: array__search_sorted_def)
    with True show ?thesis
      by (auto simp: search_result_def)
  next
    case False
    obtain i where i: "search_loop compare (map Some ?xs @ junk) 0 (length ?xs) = Some i" "i < length ?xs"
      "i = 0 \<or> f (?xs ! i) \<le> 0" "\<forall>j. i < j \<longrightarrow> j < length ?xs \<longrightarrow> 0 < f (?xs ! j)"
      using search_loop_correct [OF compare sorted, of "length ?xs" 0 junk] False by auto
    let ?c = "f (?xs ! i)"
    have res: "array__search_sorted compare a = Some (if ?c = 0 then (i, True) else if ?c < 0 then (i + 1, False) else (i, False))"
      using i(1,2) False compare by (simp add: array__search_sorted_def Let_def sz cells cell_at_def nth_append)
    have below: "f (?xs ! j) < 0" if "j \<le> i" "?c < 0" for j
      using signs_sortedD(1) [OF sorted that(1) i(2)] that(2) by force
    have "search_result f ?xs (i + 1) False" if "?c < 0"
      by (rule search_resultI) (use i(2,4) below that in auto)
    moreover have "search_result f ?xs i False" if "0 < ?c"
      by (rule search_resultI) (use i(2,3,4) that in \<open>auto simp: le_less\<close>)
    moreover have "search_result f ?xs i True" if "?c = 0"
      using i(2) that by (simp add: search_result_def)
    ultimately show ?thesis
      by (cases "?c = 0"; cases "?c < 0") (auto simp: res)
  qed
qed

lemma compare_int_nonneg:
  "0 \<le> sint a \<Longrightarrow> 0 \<le> sint b \<Longrightarrow> compare_int a b = Some (sint a - sint b)"
  using sint_lt [of a] sint_lt [of b] by (simp add: compare_int_def)

lemma sorted_insert_at:
  fixes key :: "'a \<Rightarrow> int"
  assumes "sorted_wrt (<) (map key xs)" and "search_result (\<lambda>x. key x - key v) xs i False"
  shows "sorted_wrt (<) (map key (take i xs @ v # drop i xs)) \<and>
    set (map key (take i xs @ v # drop i xs)) = insert (key v) (key ` set xs)"
proof
  have split: "xs = take i xs @ drop i xs" by simp
  have "sorted_wrt (<) (map key (take i xs @ drop i xs))"
    using assms(1) by simp
  then show "sorted_wrt (<) (map key (take i xs @ v # drop i xs))"
    using assms(2) by (auto simp: search_result_def sorted_wrt_append simp del: append_take_drop_id)
  have "set xs = set (take i xs) \<union> set (drop i xs)"
    by (metis split set_append)
  then show "set (map key (take i xs @ v # drop i xs)) = insert (key v) (key ` set xs)"
    by auto
qed

lemma signs_sorted_keys:
  fixes key :: "'a \<Rightarrow> int"
  assumes "sorted_wrt (<) (map key xs)"
  shows "signs_sorted (\<lambda>x. key x - n) xs"
  unfolding signs_sorted_def
  by (rule sorted_wrt_mono_rel [where P = "\<lambda>x y. key x < key y"]) (use assms in \<open>auto simp: sorted_wrt_map\<close>)

lemma array_insert_sorted_by_refines:
  fixes field :: "'a \<Rightarrow> u32"
  defines "key \<equiv> \<lambda>x. sint (field x)"
  assumes inv: "array_inv a" and len: "length (array_list a) < 2 ^ 32 - 1"
    and sorted: "sorted_wrt (<) (map key (array_list a))"
    and nonneg: "\<forall>x \<in> insert v (set (array_list a)). 0 \<le> key x"
  shows "\<exists>a'. array_insert_sorted_by zero field v a = Some a' \<and> array_inv a' \<and>
    sorted_wrt (<) (map key (array_list a')) \<and> key ` set (array_list a') = insert (key v) (key ` set (array_list a))"
proof -
  let ?xs = "array_list a"
  have "\<forall>x \<in> set ?xs. compare_int (field x) (field v) = Some (key x - key v)"
    using nonneg by (simp add: compare_int_nonneg key_def)
  from array__search_sorted_correct [OF inv this signs_sorted_keys [OF sorted]]
  obtain i found where search: "array_search_sorted_by field (field v) a = Some (i, found)"
    and res: "search_result (\<lambda>x. key x - key v) ?xs i found"
    by (auto simp: array_search_sorted_by_def)
  show ?thesis
  proof (cases found)
    case True
    then have "key v \<in> key ` set ?xs"
      using res by (auto simp: search_result_def intro!: image_eqI [of _ _ "?xs ! i"])
    then show ?thesis
      using True search inv sorted by (simp add: array_insert_sorted_by_def insert_absorb)
  next
    case False
    have i: "i \<le> length ?xs" "unat (of_nat i :: u32) = i"
      using res False len by (simp_all add: search_result_def unat_of_nat take_bit_eq_mod)
    obtain a' where a': "array_insert zero (of_nat i) v a = Some a'" "array_inv a'"
        "array_list a' = take i ?xs @ v # drop i ?xs"
      using array_insert_refines [OF inv _ len, of "of_nat i"] i by auto
    have "array_insert_sorted_by zero field v a = Some a'"
      using search False a'(1) by (simp add: array_insert_sorted_by_def)
    then show ?thesis
      using a'(2,3) sorted_insert_at [OF sorted, of v i] res False by auto
  qed
qed

section \<open>The interface\<close>

text \<open>
  The contract a growable sequence offers its clients, whatever its representation: an invariant,
  an abstraction to lists, and the effect of each operation on the list while the sequence is
  shorter than a limit.
\<close>

locale growable_sequence =
  fixes inv :: "'s \<Rightarrow> bool" and elems :: "'s \<Rightarrow> 'a list" and limit :: nat
    and new :: 's and push :: "'a \<Rightarrow> 's \<Rightarrow> 's option" and pop :: "'s \<Rightarrow> ('a \<times> 's) option"
    and append :: "'s \<Rightarrow> 's \<Rightarrow> 's option"
  assumes new: "inv new" "elems new = []"
    and push: "inv s \<Longrightarrow> length (elems s) < limit \<Longrightarrow>
        \<exists>s'. push x s = Some s' \<and> inv s' \<and> elems s' = elems s @ [x]"
    and pop: "inv s \<Longrightarrow> elems s \<noteq> [] \<Longrightarrow>
        \<exists>s'. pop s = Some (last (elems s), s') \<and> inv s' \<and> elems s' = butlast (elems s)"
    and append: "inv s \<Longrightarrow> inv t \<Longrightarrow> length (elems s) + length (elems t) \<le> limit \<Longrightarrow>
        \<exists>s'. append t s = Some s' \<and> inv s' \<and> elems s' = elems s @ elems t"

text \<open>Runs of an operation over a list of values, as a client performs them.\<close>

fun push_each :: "('a \<Rightarrow> 's \<Rightarrow> 's option) \<Rightarrow> 'a list \<Rightarrow> 's \<Rightarrow> 's option" where
  "push_each f [] s = Some s"
| "push_each f (x # xs) s = Option.bind (f x s) (push_each f xs)"

fun pop_times :: "('s \<Rightarrow> ('a \<times> 's) option) \<Rightarrow> nat \<Rightarrow> 's \<Rightarrow> ('a list \<times> 's) option" where
  "pop_times f 0 s = Some ([], s)"
| "pop_times f (Suc n) s =
     Option.bind (f s) (\<lambda>(x, s'). map_option (\<lambda>(xs, t). (x # xs, t)) (pop_times f n s'))"

context growable_sequence
begin

lemma push_each:
  "inv s \<Longrightarrow> length (elems s) + length xs \<le> limit \<Longrightarrow>
   \<exists>s'. push_each push xs s = Some s' \<and> inv s' \<and> elems s' = elems s @ xs"
proof (induction xs arbitrary: s)
  case Nil
  then show ?case by simp
next
  case (Cons x xs)
  then have "length (elems s) < limit" by simp
  from push [OF Cons.prems(1) this, of x] obtain s1 where
    s1: "push x s = Some s1" "inv s1" "elems s1 = elems s @ [x]" by blast
  then show ?case
    using Cons.IH [of s1] Cons.prems(2) by simp
qed

lemma pop_times:
  "inv s \<Longrightarrow> n \<le> length (elems s) \<Longrightarrow>
   \<exists>s'. pop_times pop n s = Some (take n (rev (elems s)), s') \<and> inv s' \<and>
     elems s' = take (length (elems s) - n) (elems s)"
proof (induction n arbitrary: s)
  case 0
  then show ?case by simp
next
  case (Suc n)
  then obtain ys x where e: "elems s = ys @ [x]"
    by (cases "elems s" rule: rev_exhaust) auto
  with pop [OF Suc.prems(1)] obtain s1 where s1: "pop s = Some (x, s1)" "inv s1" "elems s1 = ys"
    by auto
  have "n \<le> length ys"
    using Suc.prems(2) e by simp
  with Suc.IH [OF s1(2)] s1(3) obtain s2 where
    "pop_times pop n s1 = Some (take n (rev ys), s2)" "inv s2" "elems s2 = take (length ys - n) ys"
    by auto
  then show ?case
    using s1(1) e by simp
qed

lemma stack_order:
  assumes "length xs \<le> limit"
  shows "\<exists>s s'. push_each push xs new = Some s \<and> elems s = xs \<and>
    pop_times pop (length xs) s = Some (rev xs, s') \<and> elems s' = []"
proof -
  obtain s where s: "push_each push xs new = Some s" "inv s" "elems s = xs"
    using push_each [OF new(1), of xs] assms by (auto simp: new(2))
  then show ?thesis
    using pop_times [OF s(2), of "length xs"] by auto
qed

end

interpretation array: growable_sequence array_inv array_list "2 ^ 32 - 1" array_new array_push array_pop
    "array_push_all zero" for zero
proof
  show "array_inv array_new" "array_list array_new = []"
    using array_new_refines by blast+
qed (use array_push_refines array_pop_refines array_push_all_refines in force)+

lemma array_of_list:
  assumes "length xs \<le> 2 ^ 32 - 1"
  shows "\<exists>a. push_each array_push xs array_new = Some a \<and> array_inv a \<and> array_list a = xs"
  using array.push_each [of array_new xs] array_new_refines [where ?'a = 'a] assms by auto

section \<open>Properties\<close>

text \<open>
  Property C17. Splicing an array in place (the memory operations of
  \<^verbatim>\<open>_array__splice\<close>, with 32-bit index arithmetic and reallocation) replaces exactly the
  named range of the list it holds, for every source, and keeps the array well formed.
\<close>

theorem array_splice_correct:
  assumes "array_inv a" and "unat index + unat old_count \<le> length (array_list a)"
    and "length (array_list a) - unat old_count + unat new_count < 2 ^ 32"
    and "source_elems zero elements new_count ys"
  shows "\<exists>a'. array_splice zero index old_count new_count elements a = Some a' \<and> array_inv a' \<and>
    array_list a' = take (unat index) (array_list a) @ ys @ drop (unat index + unat old_count) (array_list a)"
  by (rule array_splice_refines [OF assms])

theorem array_splice_correct_witness:
  "\<exists>a a'. push_each array_push [7 :: nat] array_new = Some a \<and>
     array_splice 0 0 1 2 (Some [Some 8, Some 9]) a = Some a' \<and> array_list a' = [8, 9]"
proof -
  obtain a where a: "push_each array_push [7 :: nat] array_new = Some a" "array_inv a" "array_list a = [7]"
    using array_of_list [of "[7 :: nat]"] by auto
  have "source_elems 0 (Some [Some 8, Some 9]) 2 [8, 9 :: nat]"
    by (simp add: source_elems_def cells_read_def)
  then show ?thesis
    using array_splice_correct [OF a(2), of 0 1 2 0 "Some [Some 8, Some 9]" "[8, 9]"] a by auto
qed

text \<open>
  Property C29. \<^verbatim>\<open>array_insert_sorted_by\<close> makes an array an ordered set of its keys: it
  returns, the keys stay strictly increasing (so no key is doubled), and the key set grows by the
  inserted one, present or not. The keys are below \<^verbatim>\<open>2 ^ 31\<close>, where
  \<^verbatim>\<open>_compare_int\<close> cannot overflow.
\<close>

theorem array_insert_sorted_by_set:
  fixes field :: "'a \<Rightarrow> u32"
  assumes "array_inv a" and "length (array_list a) < 2 ^ 32 - 1"
    and "sorted_wrt (<) (map (\<lambda>x. sint (field x)) (array_list a))"
    and "\<forall>x \<in> insert v (set (array_list a)). 0 \<le> sint (field x)"
  shows "\<exists>a'. array_insert_sorted_by zero field v a = Some a' \<and> array_inv a' \<and>
    sorted_wrt (<) (map (\<lambda>x. sint (field x)) (array_list a')) \<and>
    (\<lambda>x. sint (field x)) ` set (array_list a') =
      insert (sint (field v)) ((\<lambda>x. sint (field x)) ` set (array_list a))"
  by (rule array_insert_sorted_by_refines [OF assms])

theorem array_insert_sorted_by_set_witness:
  "\<exists>a a'. push_each array_push [7 :: u32] array_new = Some a \<and>
     array_insert_sorted_by 0 (\<lambda>x. x) 3 a = Some a' \<and> sint ` set (array_list a') = {3, 7}"
proof -
  obtain a where a: "push_each array_push [7 :: u32] array_new = Some a" "array_inv a" "array_list a = [7]"
    using array_of_list [of "[7 :: u32]"] by auto
  then show ?thesis
    using array_insert_sorted_by_set [OF a(2), of "\<lambda>x. x" 3 0] by auto
qed

text \<open>
  An array is a stack: pushing a list of values on a new array and popping as many
  returns them in reverse and leaves it empty, through every reallocation, up to the largest
  size a 32-bit count can hold.
\<close>

theorem array_push_pop_order:
  assumes "length xs \<le> 2 ^ 32 - 1"
  shows "\<exists>a a'. push_each array_push xs array_new = Some a \<and> array_list a = xs \<and>
    pop_times array_pop (length xs) a = Some (rev xs, a') \<and> array_list a' = []"
  by (rule array.stack_order [OF assms])

theorem array_push_pop_order_witness:
  "\<exists>a a'. push_each array_push [1, 2 :: nat] array_new = Some a \<and>
    pop_times array_pop 2 a = Some ([2, 1], a')"
proof -
  have len: "length [1, 2 :: nat] = 2" "rev [1, 2 :: nat] = [2, 1]" by simp_all
  have "(2 :: nat) \<le> 2 ^ 32 - 1" by simp
  with array_push_pop_order [of "[1, 2 :: nat]", unfolded len] show ?thesis
    by blast
qed

text \<open>
  The search compares keys as signed numbers (\<^verbatim>\<open>_compare_int\<close> casts both to
  \<^verbatim>\<open>int\<close>), so it is wrong on unsigned keys from \<^verbatim>\<open>2 ^ 31\<close> on: in the
  array of 5 and \<^verbatim>\<open>2 ^ 31 + 5\<close>, which increases, the search for 5 reports that 5 is
  absent and would go last, and the search for 6 subtracts past the range of
  \<^verbatim>\<open>int\<close>, which is undefined.
\<close>

theorem array_search_sorted_by_large_keys:
  "\<exists>a. push_each array_push [5, 2 ^ 31 + 5 :: u32] array_new = Some a \<and>
     sorted_wrt (<) (array_list a) \<and> 5 \<in> set (array_list a) \<and>
     array_search_sorted_by (\<lambda>x. x) 5 a = Some (2, False) \<and>
     array_search_sorted_by (\<lambda>x. x) 6 a = None"
proof -
  obtain a where a: "push_each array_push [5, 2 ^ 31 + 5 :: u32] array_new = Some a" "array_inv a"
      "array_list a = [5, 2 ^ 31 + 5]"
    using array_of_list [of "[5, 2 ^ 31 + 5 :: u32]"] by auto
  obtain junk where cells: "block (contents a) = [Some 5, Some (2 ^ 31 + 5)] @ junk"
    using array_cells [OF a(2)] a(3) by auto
  have sz: "unat (arr_size a) = 2"
    using length_array_list [OF a(2)] a(3) by simp
  have "array_search_sorted_by (\<lambda>x. x) 5 a = Some (2, False)"
    "array_search_sorted_by (\<lambda>x. x) 6 a = None"
    by (simp_all add: array_search_sorted_by_def array__search_sorted_def cells sz search_loop.simps
        cell_at_def compare_int_def Let_def)
  then show ?thesis
    using a(1,3) by simp
qed

end
