(* ===== verification/Parser_H.thy ===== *)
theory Parser_H
  imports TS_Prelude
begin

text \<open>
  \<^verbatim>\<open>tree_sitter/parser.h\<close>: the types every grammar shares, the lexer interface
  \<^verbatim>\<open>TSLexer\<close>, the lexer macros (\<^verbatim>\<open>START_LEXER\<close>,
  \<^verbatim>\<open>ADVANCE\<close>, \<^verbatim>\<open>SKIP\<close>, \<^verbatim>\<open>ADVANCE_MAP\<close>,
  \<^verbatim>\<open>ACCEPT_TOKEN\<close>, \<^verbatim>\<open>END_STATE\<close>), the parse-table macros and
  \<^verbatim>\<open>set_contains\<close>.
\<close>

section \<open>Types\<close>

text \<open>
  Symbols and states are 16-bit in C. Nothing computes with them, so they are natural numbers
  here; that the tables stay below \<open>2 ^ 16\<close> is part of what is proved of them.
\<close>

type_synonym TSStateId = nat
type_synonym TSSymbol = nat

abbreviation (input) ts_builtin_sym_end :: TSSymbol where "ts_builtin_sym_end \<equiv> 0"

definition ts_builtin_sym_error :: TSSymbol where
  "ts_builtin_sym_error = 2 ^ 16 - 1"

definition TREE_SITTER_SERIALIZATION_BUFFER_SIZE :: nat where
  "TREE_SITTER_SERIALIZATION_BUFFER_SIZE = 1024"

record TSSymbolMetadata =
  visible :: bool
  named :: bool
  supertype :: bool

record TSFieldMapEntry =
  field_id :: nat
  child_index :: nat
  inherited :: bool

record TSMapSlice =
  slice_index :: nat
  slice_length :: nat

record TSLexMode =
  lex_state :: nat
  external_lex_state :: nat

record TSLexerMode = TSLexMode +
  reserved_word_set_id :: nat

text \<open>\<^verbatim>\<open>TSParseAction\<close> is a union tagged by its type; the tag is the constructor.\<close>

datatype TSParseAction =
    TSParseActionTypeShift (shift_state: TSStateId) (shift_extra: bool) (shift_repetition: bool)
  | TSParseActionTypeReduce (reduce_child_count: nat) (reduce_symbol: TSSymbol)
      (reduce_dynamic_precedence: int) (reduce_production_id: nat)
  | TSParseActionTypeAccept
  | TSParseActionTypeRecover

datatype TSParseActionEntry =
    Entry (entry_count: nat) (entry_reusable: bool)
  | Action TSParseAction

text \<open>The lexer object: the field the scanners write, and the state its function pointers act on.\<close>

record 's TSLexer =
  result_symbol :: TSSymbol
  rt_state :: 's

text \<open>
  The function pointers of \<^verbatim>\<open>TSLexer\<close> are the tree-sitter runtime's, which is not
  part of this repository: they are a parameter of every scanner here. \<open>rt_lookahead\<close> reads
  the field the runtime keeps up to date; the Boolean of \<open>rt_advance\<close> is \<open>skip\<close>.
  \<^verbatim>\<open>get_column\<close> and \<^verbatim>\<open>log\<close> are called by no scanner.
\<close>

record 's ts_runtime =
  rt_lookahead :: "'s \<Rightarrow> codepoint"
  rt_advance :: "bool \<Rightarrow> 's \<Rightarrow> 's"
  rt_mark_end :: "'s \<Rightarrow> 's"
  rt_is_at_included_range_start :: "'s \<Rightarrow> bool"
  rt_eof :: "'s \<Rightarrow> bool"

definition lookahead :: "'s ts_runtime \<Rightarrow> 's TSLexer \<Rightarrow> codepoint" where
  "lookahead R L = rt_lookahead R (rt_state L)"

definition lexer_advance :: "'s ts_runtime \<Rightarrow> bool \<Rightarrow> 's TSLexer \<Rightarrow> 's TSLexer" where
  "lexer_advance R skip L = L\<lparr>rt_state := rt_advance R skip (rt_state L)\<rparr>"

definition lexer_mark_end :: "'s ts_runtime \<Rightarrow> 's TSLexer \<Rightarrow> 's TSLexer" where
  "lexer_mark_end R L = L\<lparr>rt_state := rt_mark_end R (rt_state L)\<rparr>"

definition lexer_is_at_included_range_start :: "'s ts_runtime \<Rightarrow> 's TSLexer \<Rightarrow> bool" where
  "lexer_is_at_included_range_start R L = rt_is_at_included_range_start R (rt_state L)"

definition lexer_eof :: "'s ts_runtime \<Rightarrow> 's TSLexer \<Rightarrow> bool" where
  "lexer_eof R L = rt_eof R (rt_state L)"

lemmas lexer_ops_defs =
  lookahead_def lexer_advance_def lexer_mark_end_def lexer_is_at_included_range_start_def
  lexer_eof_def

section \<open>The lexer macros\<close>

text \<open>
  One \<^verbatim>\<open>case\<close> of a generated \<^verbatim>\<open>ts_lex\<close> is an optional
  \<^verbatim>\<open>ACCEPT_TOKEN\<close> followed by conditional jumps and \<^verbatim>\<open>END_STATE\<close>.
\<close>

datatype lex_goto = ADVANCE TSStateId | SKIP TSStateId | END_STATE

type_synonym lex_case = "TSSymbol option \<times> lex_goto"

text \<open>\<^verbatim>\<open>ADVANCE_MAP\<close>: the first pair whose key is the lookahead.\<close>

fun ADVANCE_MAP :: "(codepoint \<times> TSStateId) list \<Rightarrow> codepoint \<Rightarrow> TSStateId option" where
  "ADVANCE_MAP [] la = None"
| "ADVANCE_MAP ((c, st) # m) la = (if c = la then Some st else ADVANCE_MAP m la)"

definition ACCEPT_TOKEN :: "'s ts_runtime \<Rightarrow> TSSymbol \<Rightarrow> 's TSLexer \<Rightarrow> 's TSLexer" where
  "ACCEPT_TOKEN R symb L = lexer_mark_end R (L\<lparr>result_symbol := symb\<rparr>)"

text \<open>
  A generated lexer is its switch: the case for a state, given \<open>eof\<close> and the lookahead, or
  \<open>None\<close> for \<^verbatim>\<open>default: return false\<close>.
\<close>

type_synonym lex_switch = "TSStateId \<Rightarrow> bool \<Rightarrow> codepoint \<Rightarrow> lex_case option"

text \<open>
  \<^verbatim>\<open>START_LEXER\<close> and the jumps to \<^verbatim>\<open>next_state\<close>: a loop that may in
  principle not end, so it is a partial function, \<open>None\<close> for not returning.
\<close>

partial_function (option) lex_loop ::
  "'s ts_runtime \<Rightarrow> lex_switch \<Rightarrow> TSStateId \<Rightarrow> bool \<Rightarrow> 's TSLexer \<Rightarrow> (bool \<times> 's TSLexer) option" where
  "lex_loop R sw state result L =
     (case sw state (lexer_eof R L) (lookahead R L) of
        None \<Rightarrow> Some (False, L)
      | Some (acc, jump) \<Rightarrow>
          (let result' = (result \<or> acc \<noteq> None);
               L' = (case acc of None \<Rightarrow> L | Some symb \<Rightarrow> ACCEPT_TOKEN R symb L)
           in case jump of
                END_STATE \<Rightarrow> Some (result', L')
              | ADVANCE st \<Rightarrow> lex_loop R sw st result' (lexer_advance R False L')
              | SKIP st \<Rightarrow> lex_loop R sw st result' (lexer_advance R True L')))"

definition lex_fn :: "'s ts_runtime \<Rightarrow> lex_switch \<Rightarrow> TSStateId \<Rightarrow> 's TSLexer \<Rightarrow> (bool \<times> 's TSLexer) option" where
  "lex_fn R sw state L = lex_loop R sw state False L"

section \<open>The parse-table macros\<close>

definition SHIFT :: "TSStateId \<Rightarrow> TSParseActionEntry" where
  "SHIFT st = Action (TSParseActionTypeShift st False False)"

definition SHIFT_REPEAT :: "TSStateId \<Rightarrow> TSParseActionEntry" where
  "SHIFT_REPEAT st = Action (TSParseActionTypeShift st False True)"

definition SHIFT_EXTRA :: TSParseActionEntry where
  "SHIFT_EXTRA = Action (TSParseActionTypeShift 0 True False)"

definition REDUCE :: "TSSymbol \<Rightarrow> nat \<Rightarrow> int \<Rightarrow> nat \<Rightarrow> TSParseActionEntry" where
  "REDUCE symb children precedence prod_id =
     Action (TSParseActionTypeReduce children symb precedence prod_id)"

definition RECOVER :: TSParseActionEntry where
  "RECOVER = Action TSParseActionTypeRecover"

definition ACCEPT_INPUT :: TSParseActionEntry where
  "ACCEPT_INPUT = Action TSParseActionTypeAccept"

lemmas action_macros [ts_simps] =
  SHIFT_def SHIFT_REPEAT_def SHIFT_EXTRA_def REDUCE_def RECOVER_def ACCEPT_INPUT_def

definition SMALL_STATE :: "nat \<Rightarrow> TSStateId \<Rightarrow> nat" where
  "SMALL_STATE large_state_count i = i - large_state_count"

text \<open>
  \<^verbatim>\<open>STATE(id)\<close> and \<^verbatim>\<open>ACTIONS(id)\<close> are \<^verbatim>\<open>id\<close>, so the
  tables below hold the numbers themselves.
\<close>

section \<open>The language object\<close>

text \<open>
  \<^verbatim>\<open>TSLanguage\<close>, without the members no grammar here sets (reserved words,
  supertypes) and without name and metadata. A pointer to an array is the function that reads it;
  one that some grammars leave null is an option. A \<^verbatim>\<open>parser.c\<close> casts its lex modes
  from \<^verbatim>\<open>TSLexMode\<close> or \<^verbatim>\<open>TSLexerMode\<close>, which start alike.
\<close>

record TSLanguage =
  abi_version :: nat
  symbol_count :: nat
  alias_count :: nat
  token_count :: nat
  external_token_count :: nat
  state_count :: nat
  large_state_count :: nat
  production_id_count :: nat
  field_count :: nat
  max_alias_sequence_length :: nat
  parse_table :: "nat \<Rightarrow> nat"
  small_parse_table :: "nat \<Rightarrow> nat"
  small_parse_table_map :: "nat \<Rightarrow> nat"
  parse_actions :: "nat \<Rightarrow> TSParseActionEntry"
  symbol_names :: "TSSymbol \<Rightarrow> string"
  field_names :: "(nat \<Rightarrow> string option) option"
  field_map_slices :: "(nat \<Rightarrow> TSMapSlice) option"
  field_map_entries :: "(nat \<Rightarrow> TSFieldMapEntry) option"
  symbol_metadata :: "TSSymbol \<Rightarrow> TSSymbolMetadata"
  public_symbol_map :: "TSSymbol \<Rightarrow> TSSymbol"
  alias_map :: "nat \<Rightarrow> nat"
  alias_sequences :: "nat \<Rightarrow> TSSymbol"
  lex_modes :: "TSStateId \<Rightarrow> TSLexMode"
  language_lex :: lex_switch
  keyword_lex_fn :: "lex_switch option"
  keyword_capture_token :: TSSymbol
  external_states :: "nat \<Rightarrow> bool"
  external_symbol_map :: "nat \<Rightarrow> TSSymbol"
  primary_state_ids :: "TSStateId \<Rightarrow> TSStateId"

section \<open>Character sets\<close>

text \<open>
  \<^verbatim>\<open>set_contains\<close>: a binary search over sorted ranges. The indices stay below
  \<open>len\<close> (an \<^verbatim>\<open>uint32_t\<close>), so no operation wraps. Reading past the end of the array (the empty set) is undefined in C and \<open>None\<close> here.
\<close>

record TSCharacterRange =
  range_start :: int
  range_end :: int

definition in_range :: "TSCharacterRange \<Rightarrow> int \<Rightarrow> bool" where
  "in_range r c \<longleftrightarrow> c \<ge> range_start r \<and> c \<le> range_end r"

definition checked_nth :: "'a list \<Rightarrow> nat \<Rightarrow> 'a option" where
  "checked_nth xs i = (if i < length xs then Some (xs ! i) else None)"

function set_contains_loop :: "TSCharacterRange list \<Rightarrow> nat \<Rightarrow> nat \<Rightarrow> int \<Rightarrow> bool option" where
  "set_contains_loop ranges index sz la =
     (if sz > 1 then
        (let half_size = sz div 2; mid_index = index + half_size
         in case checked_nth ranges mid_index of
              None \<Rightarrow> None
            | Some r \<Rightarrow>
                (if in_range r la then Some True
                 else set_contains_loop ranges
                        (if la > range_end r then mid_index else index)
                        (sz - half_size) la))
      else map_option (\<lambda>r. in_range r la) (checked_nth ranges index))"
  by pat_completeness auto
termination
  by (relation "measure (\<lambda>(ranges, index, sz, la). sz)") auto

definition set_contains :: "TSCharacterRange list \<Rightarrow> nat \<Rightarrow> int \<Rightarrow> bool option" where
  "set_contains ranges len la = set_contains_loop ranges 0 (len - 0) la"

declare set_contains_loop.simps [simp del]

definition ranges_sorted :: "TSCharacterRange list \<Rightarrow> bool" where
  "ranges_sorted ranges \<longleftrightarrow> (\<forall>r \<in> set ranges. range_start r \<le> range_end r) \<and>
     sorted_wrt (\<lambda>r q. range_end r < range_start q) ranges"

lemma ranges_sorted_steps:
  "ranges_sorted [r] \<longleftrightarrow> range_start r \<le> range_end r"
  "ranges_sorted (r # q # ranges) \<longleftrightarrow>
     range_start r \<le> range_end r \<and> range_end r < range_start q \<and> ranges_sorted (q # ranges)"
  by (auto simp: ranges_sorted_def)

lemma ranges_sorted_nth:
  assumes "ranges_sorted ranges" and "i < j" and "j < length ranges"
  shows "range_end (ranges ! i) < range_start (ranges ! j)"
  using sorted_wrt_nth_less [OF _ assms(2,3), of "\<lambda>r q. range_end r < range_start q"] assms(1)
  by (simp add: ranges_sorted_def)

lemma ranges_sorted_le:
  "ranges_sorted ranges \<Longrightarrow> i < length ranges \<Longrightarrow> range_start (ranges ! i) \<le> range_end (ranges ! i)"
  by (simp add: ranges_sorted_def)

lemma not_in_range_below:
  assumes "ranges_sorted ranges" and "j < length ranges" and "range_end (ranges ! j) < c" and "i \<le> j"
  shows "\<not> in_range (ranges ! i) c"
  using assms ranges_sorted_nth [of ranges i j] ranges_sorted_le [of ranges j]
  by (cases "i = j") (auto simp: in_range_def)

lemma not_in_range_above:
  assumes "ranges_sorted ranges" and "i < length ranges" and "c < range_start (ranges ! j)" and "j \<le> i"
  shows "\<not> in_range (ranges ! i) c"
  using assms ranges_sorted_nth [of ranges j i] ranges_sorted_le [of ranges j]
  by (cases "i = j") (auto simp: in_range_def)

lemma set_contains_loop_correct:
  assumes "ranges_sorted ranges"
  shows "0 < sz \<Longrightarrow> index + sz \<le> length ranges \<Longrightarrow>
    set_contains_loop ranges index sz c =
      Some (\<exists>i. index \<le> i \<and> i < index + sz \<and> in_range (ranges ! i) c)"
  using assms
proof (induction ranges index sz c rule: set_contains_loop.induct)
  case (1 ranges index sz c)
  let ?half = "sz div 2" and ?mid = "index + sz div 2"
  note unfold = set_contains_loop.simps [of ranges index sz c]
  show ?case
  proof (cases "sz > 1")
    case False
    with "1.prems" have "sz = 1" by simp
    moreover have "(\<exists>i. index \<le> i \<and> i < index + 1 \<and> in_range (ranges ! i) c) \<longleftrightarrow> in_range (ranges ! index) c"
      using le_less_Suc_eq by auto
    moreover have "set_contains_loop ranges index sz c = Some (in_range (ranges ! index) c)"
      using "1.prems" False by (simp add: unfold checked_nth_def)
    ultimately show ?thesis by simp
  next
    case True
    then have half: "0 < ?half" "?half < sz" by auto
    have mid: "checked_nth ranges ?mid = Some (ranges ! ?mid)" "?mid < length ranges"
      using "1.prems" half by (simp_all add: checked_nth_def)
    show ?thesis
    proof (cases "in_range (ranges ! ?mid) c")
      case in_mid: True
      with True mid half show ?thesis
        by (auto simp: unfold Let_def intro!: exI [of _ ?mid])
    next
      case out: False
      note IH = "1.IH" [OF True refl refl mid(1) out]
      have step: "set_contains_loop ranges index sz c = set_contains_loop ranges
          (if c > range_end (ranges ! ?mid) then ?mid else index) (sz - ?half) c"
        using True mid(1) out by (simp add: unfold Let_def)
      show ?thesis
      proof (cases "c > range_end (ranges ! ?mid)")
        case gt: True
        have "set_contains_loop ranges index sz c =
            Some (\<exists>i. ?mid \<le> i \<and> i < ?mid + (sz - ?half) \<and> in_range (ranges ! i) c)"
          using IH gt half "1.prems" by (simp add: step)
        moreover have "\<not> in_range (ranges ! i) c" if "i < ?mid" for i
          using not_in_range_below [OF "1.prems"(3) mid(2) gt, of i] that by simp
        ultimately show ?thesis
          by (auto simp: not_less) (meson add_leD1, meson leI)
      next
        case le: False
        then have lt: "c < range_start (ranges ! ?mid)"
          using out by (auto simp: in_range_def)
        have "set_contains_loop ranges index sz c =
            Some (\<exists>i. index \<le> i \<and> i < index + (sz - ?half) \<and> in_range (ranges ! i) c)"
          using IH le half "1.prems" by (simp add: step)
        moreover have "\<not> in_range (ranges ! i) c" if "?mid \<le> i" "i < index + sz" for i
          using not_in_range_above [OF "1.prems"(3) _ lt that(1)] that(2) "1.prems"(2) by simp
        moreover have "?mid \<le> index + (sz - ?half)"
          by simp
        ultimately show ?thesis
          using half by (smt (verit) diff_less le_less_trans nat_add_left_cancel_less not_le order_less_trans)
      qed
    qed
  qed
qed

lemma between_self: "a \<le> c \<and> c \<le> a \<longleftrightarrow> c = (a :: int)"
  by auto

lemma set_contains_mem:
  assumes "ranges_sorted ranges" and "ranges \<noteq> []"
  shows "set_contains ranges (length ranges) c = Some (\<exists>r \<in> set ranges. in_range r c)"
  using set_contains_loop_correct [OF assms(1), of "length ranges" 0 c] assms(2)
  by (auto simp: set_contains_def) (auto simp: in_set_conv_nth)

text \<open>
  On sorted, disjoint ranges the binary search of \<^verbatim>\<open>set_contains\<close> returns
  whether one of them holds the character; it never reads outside the array.
\<close>

theorem set_contains_correct:
  assumes "ranges_sorted ranges" and "ranges \<noteq> []"
  shows "set_contains ranges (length ranges) c = Some (\<exists>r \<in> set ranges. in_range r c)"
  by (rule set_contains_mem [OF assms])

theorem set_contains_correct_witness:
  "set_contains [\<lparr>range_start = CH_0, range_end = CH_9\<rparr>, \<lparr>range_start = CH_a, range_end = CH_z\<rparr>] 2 CH_f
     = Some True"
  using set_contains_correct
    [of "[\<lparr>range_start = CH_0, range_end = CH_9\<rparr>, \<lparr>range_start = CH_a, range_end = CH_z\<rparr>]" CH_f]
  by (simp add: ranges_sorted_def in_range_def numeral_2_eq_2)

end
