(* ===== verification/Lexer_Runtime.thy ===== *)
theory Lexer_Runtime
  imports Parser_H
begin

text \<open>
  What the scanners and the generated lexers rely on of the tree-sitter runtime, as a locale, and
  of \<^verbatim>\<open><wctype.h>\<close>. The runtime itself is not in this repository; its documented
  behaviour is that \<^verbatim>\<open>lookahead\<close> is the next character or 0 at the end,
  \<^verbatim>\<open>advance\<close> consumes one, \<^verbatim>\<open>mark_end\<close> puts the end of the token at
  the current position, and \<^verbatim>\<open>eof\<close> tells the end of input from a NUL. A cursor over
  a list of code points is the reference instance.
\<close>

section \<open>The runtime's contract\<close>

text \<open>
  \<open>ahead\<close> is the text not consumed yet; \<open>marked\<close> is the text that followed the position at which
  \<^verbatim>\<open>mark_end\<close> was last called.
\<close>

locale text_runtime =
  fixes R :: "'s ts_runtime"
    and ahead :: "'s \<Rightarrow> codepoint list"
    and marked :: "'s \<Rightarrow> codepoint list"
  assumes rt_lookahead: "rt_lookahead R s = (case ahead s of [] \<Rightarrow> 0 | c # cs \<Rightarrow> c)"
    and rt_advance_ahead: "ahead (rt_advance R skip s) = tl (ahead s)"
    and rt_mark_end_ahead: "ahead (rt_mark_end R s) = ahead s"
    and rt_eof: "rt_eof R s \<longleftrightarrow> ahead s = []"
    and rt_advance_marked: "marked (rt_advance R skip s) = marked s"
    and rt_mark_end_marked: "marked (rt_mark_end R s) = ahead s"
begin

text \<open>The same laws over the lexer object, which is what the scanners handle.\<close>

lemma la_Nil: "ahead (rt_state L) = [] \<Longrightarrow> lookahead R L = 0"
  by (simp add: lookahead_def rt_lookahead)

lemma la_Cons: "ahead (rt_state L) = c # cs \<Longrightarrow> lookahead R L = c"
  by (simp add: lookahead_def rt_lookahead)

lemma la_nonzeroD: "lookahead R L \<noteq> 0 \<Longrightarrow> ahead (rt_state L) = lookahead R L # tl (ahead (rt_state L))"
  by (cases "ahead (rt_state L)") (simp_all add: la_Nil la_Cons)

lemma advance_ahead: "ahead (rt_state (lexer_advance R skip L)) = tl (ahead (rt_state L))"
  by (simp add: lexer_advance_def rt_advance_ahead)

lemma advance_marked: "marked (rt_state (lexer_advance R skip L)) = marked (rt_state L)"
  by (simp add: lexer_advance_def rt_advance_marked)

lemma advance_symbol: "result_symbol (lexer_advance R skip L) = result_symbol L"
  by (simp add: lexer_advance_def)

lemma mark_end_ahead: "ahead (rt_state (lexer_mark_end R L)) = ahead (rt_state L)"
  by (simp add: lexer_mark_end_def rt_mark_end_ahead)

lemma mark_end_marked: "marked (rt_state (lexer_mark_end R L)) = ahead (rt_state L)"
  by (simp add: lexer_mark_end_def rt_mark_end_marked)

lemma mark_end_symbol: "result_symbol (lexer_mark_end R L) = result_symbol L"
  by (simp add: lexer_mark_end_def)

lemma eof_iff: "lexer_eof R L \<longleftrightarrow> ahead (rt_state L) = []"
  by (simp add: lexer_eof_def rt_eof)

lemma set_symbol_ahead: "ahead (rt_state (L\<lparr>result_symbol := y\<rparr>)) = ahead (rt_state L)"
  by simp

lemmas runtime_simps =
  advance_ahead advance_marked advance_symbol mark_end_ahead mark_end_marked mark_end_symbol eof_iff

lemma advance_shorter:
  "lookahead R L \<noteq> 0 \<Longrightarrow>
   length (ahead (rt_state (lexer_advance R skip L))) < length (ahead (rt_state L))"
  by (subst la_nonzeroD [of L]) (simp_all add: advance_ahead)

end

section \<open>The scanners' loops\<close>

text \<open>
  The scanners are full of loops \<^verbatim>\<open>while (P(lexer->lookahead)) lexer->advance(lexer, skip);\<close>.
  Whether such a loop ends depends on the runtime, so it is a partial function.
\<close>

partial_function (option) scan_while ::
  "'s ts_runtime \<Rightarrow> (codepoint \<Rightarrow> bool) \<Rightarrow> bool \<Rightarrow> 's TSLexer \<Rightarrow> 's TSLexer option" where
  "scan_while R P skip L =
     (if P (lookahead R L) then scan_while R P skip (lexer_advance R skip L) else Some L)"

text \<open>
  What a scanner can observe of the lexer over a text: the text ahead, the text behind the marked
  end, and the symbol recorded. A scanner's contract is stated on views: it is a function of the
  view it starts from.
\<close>

type_synonym view = "codepoint list \<times> codepoint list \<times> TSSymbol"

abbreviation view_ahead :: "view \<Rightarrow> codepoint list" where "view_ahead v \<equiv> fst v"
abbreviation view_marked :: "view \<Rightarrow> codepoint list" where "view_marked v \<equiv> fst (snd v)"
abbreviation view_symbol :: "view \<Rightarrow> TSSymbol" where "view_symbol v \<equiv> snd (snd v)"

text \<open>The lookahead of a text: its first character, and 0 at its end.\<close>

fun peek :: "codepoint list \<Rightarrow> codepoint" where
  "peek [] = 0"
| "peek (c # cs) = c"

lemma peek_nonzeroD: "peek xs \<noteq> 0 \<Longrightarrow> xs = peek xs # tl xs"
  by (cases xs) simp_all

lemma peek_eqD: "peek xs = c \<Longrightarrow> c \<noteq> 0 \<Longrightarrow> xs = c # tl xs"
  by (cases xs) simp_all

definition view_of ::
  "('s \<Rightarrow> codepoint list) \<Rightarrow> ('s \<Rightarrow> codepoint list) \<Rightarrow> 's TSLexer \<Rightarrow> view" where
  "view_of ahead marked L = (ahead (rt_state L), marked (rt_state L), result_symbol L)"

context text_runtime
begin

abbreviation text_view :: "'s TSLexer \<Rightarrow> view" where
  "text_view \<equiv> view_of ahead marked"

lemma view_simps:
  "view_ahead (text_view L) = ahead (rt_state L)"
  "view_marked (text_view L) = marked (rt_state L)"
  "view_symbol (text_view L) = result_symbol L"
  by (simp_all add: view_of_def)

lemma lookahead_view: "text_view L = (xs, m, y) \<Longrightarrow> lookahead R L = peek xs"
  by (auto simp: view_of_def lookahead_def rt_lookahead split: list.splits)

lemma advance_view: "text_view L = (xs, m, y) \<Longrightarrow> text_view (lexer_advance R skip L) = (tl xs, m, y)"
  by (auto simp: view_of_def runtime_simps)

lemma mark_end_view: "text_view L = (xs, m, y) \<Longrightarrow> text_view (lexer_mark_end R L) = (xs, xs, y)"
  by (auto simp: view_of_def runtime_simps)

lemma set_symbol_view: "text_view L = (xs, m, y) \<Longrightarrow> text_view (L\<lparr>result_symbol := z\<rparr>) = (xs, m, z)"
  by (auto simp: view_of_def)

lemma eof_view: "text_view L = (xs, m, y) \<Longrightarrow> lexer_eof R L \<longleftrightarrow> xs = []"
  by (auto simp: view_of_def runtime_simps)

lemmas view_rules = advance_view mark_end_view set_symbol_view

lemma scan_while_view:
  "text_view L = (xs, m, y) \<Longrightarrow> \<not> P 0 \<Longrightarrow>
   \<exists>L'. scan_while R P skip L = Some L' \<and> text_view L' = (dropWhile P xs, m, y)"
proof (induction xs arbitrary: L)
  case Nil
  then show ?case
    by (subst scan_while.simps) (simp add: lookahead_view)
next
  case (Cons c cs)
  from advance_view [OF Cons.prems(1), of skip] Cons.IH [of "lexer_advance R skip L"] Cons.prems(2)
  obtain L' where "scan_while R P skip (lexer_advance R skip L) = Some L'" "text_view L' = (dropWhile P cs, m, y)"
    by auto
  then show ?case
    using Cons.prems by (subst scan_while.simps) (auto simp: lookahead_view)
qed

end

section \<open>Character classes\<close>

text \<open>
  \<^verbatim>\<open>iswspace\<close>, \<^verbatim>\<open>iswdigit\<close> and \<^verbatim>\<open>iswalpha\<close> depend
  on the process's locale, so they are a parameter too. What holds in every locale is that NUL is
  in none of the classes, that line feed and space are white space and that the graphic characters
  of the basic set are not; the C locale's classes are the reference instance.
\<close>

record wctype =
  iswspace :: "codepoint \<Rightarrow> bool"
  iswdigit :: "codepoint \<Rightarrow> bool"
  iswalpha :: "codepoint \<Rightarrow> bool"

definition wctype_ok :: "wctype \<Rightarrow> bool" where
  "wctype_ok W \<longleftrightarrow> \<not> iswspace W 0 \<and> \<not> iswdigit W 0 \<and> \<not> iswalpha W 0 \<and>
     iswspace W CH_LF \<and> iswspace W CH_SPACE \<and> (\<forall>c. 33 \<le> c \<and> c \<le> 126 \<longrightarrow> \<not> iswspace W c)"

definition C_wctype :: wctype where
  "C_wctype = \<lparr>iswspace = (\<lambda>c. CH_TAB \<le> c \<and> c \<le> CH_CR \<or> c = CH_SPACE),
     iswdigit = (\<lambda>c. CH_0 \<le> c \<and> c \<le> CH_9),
     iswalpha = (\<lambda>c. CH_A \<le> c \<and> c \<le> CH_Z \<or> CH_a \<le> c \<and> c \<le> CH_z)\<rparr>"

lemma C_wctype_simps [ts_simps]:
  "iswspace C_wctype c \<longleftrightarrow> CH_TAB \<le> c \<and> c \<le> CH_CR \<or> c = CH_SPACE"
  "iswdigit C_wctype c \<longleftrightarrow> CH_0 \<le> c \<and> c \<le> CH_9"
  "iswalpha C_wctype c \<longleftrightarrow> CH_A \<le> c \<and> c \<le> CH_Z \<or> CH_a \<le> c \<and> c \<le> CH_z"
  by (simp_all add: C_wctype_def)

lemma C_wctype_ok: "wctype_ok C_wctype"
  by (simp add: wctype_ok_def C_wctype_def)

section \<open>A cursor over a text\<close>

text \<open>
  The reference runtime: the text ahead, the text that followed the last marked end, the position,
  and the positions at which an included range starts.
\<close>

record cursor =
  cur_ahead :: "codepoint list"
  cur_marked :: "codepoint list"
  cur_pos :: nat
  cur_range_starts :: "nat list"

definition cursor_runtime :: "cursor ts_runtime" where
  "cursor_runtime =
     \<lparr>rt_lookahead = (\<lambda>s. case cur_ahead s of [] \<Rightarrow> 0 | c # cs \<Rightarrow> c),
      rt_advance = (\<lambda>skip s. s\<lparr>cur_ahead := tl (cur_ahead s), cur_pos := Suc (cur_pos s)\<rparr>),
      rt_mark_end = (\<lambda>s. s\<lparr>cur_marked := cur_ahead s\<rparr>),
      rt_is_at_included_range_start = (\<lambda>s. cur_pos s \<in> set (cur_range_starts s)),
      rt_eof = (\<lambda>s. cur_ahead s = [])\<rparr>"

interpretation cursor: text_runtime cursor_runtime cur_ahead cur_marked
  by unfold_locales (simp_all add: cursor_runtime_def)

lemma cursor_text_runtime: "text_runtime cursor_runtime cur_ahead cur_marked"
  by (rule cursor.text_runtime_axioms)

text \<open>A lexer at the start of a text, with no token recorded.\<close>

definition text_lexer :: "codepoint list \<Rightarrow> cursor TSLexer" where
  "text_lexer xs = \<lparr>result_symbol = ts_builtin_sym_error,
     rt_state = \<lparr>cur_ahead = xs, cur_marked = xs, cur_pos = 0, cur_range_starts = []\<rparr>\<rparr>"

lemmas cursor_eval [ts_simps] =
  cursor_runtime_def text_lexer_def lexer_ops_defs ACCEPT_TOKEN_def

lemma text_lexer_view: "view_of cur_ahead cur_marked (text_lexer xs) = (xs, xs, ts_builtin_sym_error)"
  by (simp add: view_of_def text_lexer_def)

lemma text_lexer_ahead: "cur_ahead (rt_state (text_lexer xs)) = xs"
  by (simp add: text_lexer_def)

end
