(* ===== verification/Raw_Delimiter.thy ===== *)
theory Raw_Delimiter
  imports Lexer_Runtime
begin

text \<open>
  Where a raw string ends. The two raw-string scanners (\<^verbatim>\<open>scanner.c\<close> of the C++ grammar
  and \<^verbatim>\<open>scanner.cc\<close> of the comment and preprocessor grammars) look for
  \<^verbatim>\<open>)delimiter"\<close> with one counter and no backtracking. This theory states what they look for
  and why a single counter finds it: no proper part of the pattern starts it again unless the
  delimiter itself holds a closing parenthesis.
\<close>

section \<open>The first occurrence of a pattern\<close>

fun first_at :: "'a list \<Rightarrow> 'a list \<Rightarrow> 'a list option" where
  "first_at p [] = (if p = [] then Some [] else None)"
| "first_at p (x # xs) = (if prefix p (x # xs) then Some (x # xs) else first_at p xs)"

lemma first_at_Some_iff:
  "first_at p xs = Some ys \<longleftrightarrow>
   (\<exists>us. xs = us @ ys \<and> prefix p ys \<and> (\<forall>vs ws. us = vs @ ws \<longrightarrow> ws \<noteq> [] \<longrightarrow> \<not> prefix p (ws @ ys)))"
  (is "_ \<longleftrightarrow> (\<exists>us. ?split xs us)")
proof (induction xs)
  case Nil
  then show ?case by auto
next
  case (Cons x xs)
  show ?case
  proof (cases "prefix p (x # xs)")
    case True
    have "us = []" if "?split (x # xs) us" for us
      using that True by (metis append_Nil)
    moreover have "?split (x # xs) [] \<longleftrightarrow> ys = x # xs"
      using True by auto
    ultimately have "(\<exists>us. ?split (x # xs) us) \<longleftrightarrow> ys = x # xs" by metis
    then show ?thesis
      using True by auto
  next
    case False
    have "(\<exists>us. ?split (x # xs) us) \<longleftrightarrow> (\<exists>us. ?split xs us)"
    proof
      assume "\<exists>us. ?split (x # xs) us"
      then obtain us where us: "?split (x # xs) us" by blast
      with False obtain us' where "us = x # us'" "xs = us' @ ys"
        by (cases us) auto
      then have "?split xs us'"
        using us by (metis append_Cons)
      then show "\<exists>us. ?split xs us" by blast
    next
      assume "\<exists>us. ?split xs us"
      then obtain us where us: "?split xs us" by blast
      have "?split (x # xs) (x # us)"
        using us False by (auto simp: Cons_eq_append_conv)
      then show "\<exists>us. ?split (x # xs) us" by blast
    qed
    then show ?thesis
      using False Cons.IH by simp
  qed
qed

lemma first_at_None_iff: "first_at p xs = None \<longleftrightarrow> \<not> sublist p xs"
  by (induction xs) (auto simp: sublist_Cons_right)

lemma first_at_shorter: "length xs < length p \<Longrightarrow> first_at p xs = None"
  by (induction xs) (auto dest: prefix_length_le)

lemma first_at_skip: "\<not> prefix p (x # xs) \<Longrightarrow> first_at p (x # xs) = first_at p xs"
  by simp

lemma first_at_same: "p \<noteq> [] \<Longrightarrow> first_at p (p @ xs) = Some (p @ xs)"
  by (cases p) simp_all

lemma first_at_append: "first_at p xs = Some ys \<Longrightarrow> first_at p (xs @ zs) = Some (ys @ zs)"
proof (induction xs)
  case Nil
  then show ?case by (cases zs) (auto split: if_splits)
next
  case (Cons x xs)
  show ?case
  proof (cases "prefix p (x # xs)")
    case True
    then have "prefix p ((x # xs) @ zs)"
      by (rule prefix_prefix)
    moreover have "ys = x # xs"
      using True Cons.prems by simp
    ultimately show ?thesis
      by (cases p) auto
  next
    case False
    then have first: "first_at p xs = Some ys"
      using Cons.prems by simp
    then have "length p \<le> length xs"
      using first_at_shorter [of xs p] by force
    then have "\<not> prefix p ((x # xs) @ zs)"
      using False prefix_length_prefix [of p "(x # xs) @ zs" "x # xs"] by auto
    then show ?thesis
      using Cons.IH [OF first] by simp
  qed
qed

text \<open>Text that holds no copy of the pattern's first character can be skipped.\<close>

lemma first_at_skip_free: "x \<notin> set us \<Longrightarrow> first_at (x # p) (us @ xs) = first_at (x # p) xs"
  by (induction us) auto

section \<open>One counter suffices\<close>

definition raw_closer :: "codepoint list \<Rightarrow> codepoint list" where
  "raw_closer d = CH_RPAREN # d @ [CH_DQUOTE]"

lemma length_raw_closer [simp]: "length (raw_closer d) = length d + 2"
  by (simp add: raw_closer_def)

text \<open>
  After \<open>k\<close> matched characters the scanner stands behind \<open>take k (raw_closer d)\<close>. If the next
  character does not continue the match, the occurrence, if any, starts at that character or later.
\<close>

lemma raw_closer_mismatch:
  assumes "CH_RPAREN \<notin> set d" and "k \<le> length d + 1"
    and "\<not> (0 < k \<and> c = raw_closer d ! k)"
  shows "first_at (raw_closer d) (take k (raw_closer d) @ c # cs) = first_at (raw_closer d) (c # cs)"
proof (cases k)
  case 0
  then show ?thesis by simp
next
  case (Suc j)
  let ?u = "take k (raw_closer d) @ c # cs"
  have k: "k < length (raw_closer d)"
    using assms(2) by simp
  have "\<not> prefix (raw_closer d) ?u"
  proof
    assume "prefix (raw_closer d) ?u"
    then obtain zs where "?u = raw_closer d @ zs"
      by (auto simp: prefix_def)
    then have "raw_closer d ! k = ?u ! k"
      using k by (simp only: nth_append if_True)
    also have "\<dots> = c"
      using k by (simp add: nth_append)
    finally show False
      using assms(3) Suc by simp
  qed
  moreover have "take k (raw_closer d) = CH_RPAREN # take j d"
    using assms(2) by (simp add: raw_closer_def Suc)
  ultimately have "first_at (raw_closer d) ?u = first_at (raw_closer d) (take j d @ c # cs)"
    by simp
  also have "\<dots> = first_at (raw_closer d) (c # cs)"
    unfolding raw_closer_def
    by (rule first_at_skip_free) (use assms(1) set_take_subset in fast)
  finally show ?thesis .
qed

lemma raw_closer_nth:
  "k < length d \<Longrightarrow> raw_closer d ! Suc k = d ! k" "raw_closer d ! Suc (length d) = CH_DQUOTE"
  by (simp_all add: raw_closer_def nth_append)

lemma raw_closer_match:
  "k < length d + 2 \<Longrightarrow>
   take k (raw_closer d) @ raw_closer d ! k # cs = take (Suc k) (raw_closer d) @ cs"
  by (simp add: take_Suc_conv_app_nth)

end
