(* ===== verification/Scan_Mozcpp.thy ===== *)
theory Scan_Mozcpp
  imports Raw_Delimiter Array_H
begin

text \<open>
  The external scanner of the C++ grammar, \<^verbatim>\<open>tree-sitter-mozcpp/src/scanner.c\<close>: the
  delimiter and the content of a raw string literal \<^verbatim>\<open>R"delimiter(content)delimiter"\<close>, as
  two tokens that share the delimiter through the scanner's state, and the state's serialisation.
  \<^verbatim>\<open>wchar_t\<close> is 32 bits wide, as on the platforms the tool's releases are built for
  apart from Windows.
\<close>

section \<open>The scanner's state\<close>

datatype mozcpp_TokenType = RAW_STRING_DELIMITER | RAW_STRING_CONTENT

fun mozcpp_symbol :: "mozcpp_TokenType \<Rightarrow> TSSymbol" where
  "mozcpp_symbol RAW_STRING_DELIMITER = 0"
| "mozcpp_symbol RAW_STRING_CONTENT = 1"

definition MAX_DELIMITER_LENGTH :: nat where
  "MAX_DELIMITER_LENGTH = 16"

type_synonym wchar = "32 word"

record mozcpp_Scanner =
  delimiter_length :: "8 word"
  delimiter :: "wchar list"

definition mozcpp_reset :: "mozcpp_Scanner \<Rightarrow> mozcpp_Scanner" where
  "mozcpp_reset scanner =
     scanner\<lparr>delimiter_length := 0, delimiter := replicate MAX_DELIMITER_LENGTH 0\<rparr>"

definition mozcpp_wf :: "mozcpp_Scanner \<Rightarrow> bool" where
  "mozcpp_wf scanner \<longleftrightarrow> length (delimiter scanner) = MAX_DELIMITER_LENGTH \<and>
     unat (delimiter_length scanner) \<le> MAX_DELIMITER_LENGTH"

definition tree_sitter_mozcpp_external_scanner_create :: mozcpp_Scanner where
  "tree_sitter_mozcpp_external_scanner_create =
     \<lparr>delimiter_length = 0, delimiter = replicate MAX_DELIMITER_LENGTH 0\<rparr>"

section \<open>Scanning\<close>

text \<open>
  The closing delimiter: each character must be the recorded one. Reading outside the array would
  be undefined; it cannot happen in a well-formed state, where \<open>None\<close> does not arise.
\<close>

fun scan_closing_delimiter ::
  "'s ts_runtime \<Rightarrow> wchar list \<Rightarrow> nat \<Rightarrow> nat \<Rightarrow> 's TSLexer \<Rightarrow> (bool \<times> 's TSLexer) option" where
  "scan_closing_delimiter R d i 0 L = Some (True, L)"
| "scan_closing_delimiter R d i (Suc n) L =
     (if i < length d
      then if lookahead R L \<noteq> sint (d ! i) then Some (False, L)
           else scan_closing_delimiter R d (Suc i) n (lexer_advance R False L)
      else None)"

partial_function (option) scan_opening_delimiter ::
  "wctype \<Rightarrow> 's ts_runtime \<Rightarrow> mozcpp_Scanner \<Rightarrow> 's TSLexer \<Rightarrow> (bool \<times> mozcpp_Scanner \<times> 's TSLexer) option" where
  "scan_opening_delimiter W R scanner L =
     (if unat (delimiter_length scanner) \<ge> MAX_DELIMITER_LENGTH \<or> lexer_eof R L \<or>
         lookahead R L = CH_BACKSLASH \<or> iswspace W (lookahead R L)
      then Some (False, scanner, L)
      else if lookahead R L = CH_LPAREN then Some (delimiter_length scanner > 0, scanner, L)
      else scan_opening_delimiter W R
             (scanner\<lparr>delimiter := (delimiter scanner)[unat (delimiter_length scanner) := word_of_int (lookahead R L)],
                      delimiter_length := delimiter_length scanner + 1\<rparr>)
             (lexer_advance R False L))"

definition scan_raw_string_delimiter ::
  "wctype \<Rightarrow> 's ts_runtime \<Rightarrow> mozcpp_Scanner \<Rightarrow> 's TSLexer \<Rightarrow> (bool \<times> mozcpp_Scanner \<times> 's TSLexer) option" where
  "scan_raw_string_delimiter W R scanner L =
     (if delimiter_length scanner > 0
      then map_option (\<lambda>(ok, L'). (ok, if ok then mozcpp_reset scanner else scanner, L'))
             (scan_closing_delimiter R (delimiter scanner) 0 (unat (delimiter_length scanner)) L)
      else scan_opening_delimiter W R scanner L)"

text \<open>The loop of the content, with its \<^verbatim>\<open>delimiter_index\<close>.\<close>

definition content_index :: "mozcpp_Scanner \<Rightarrow> int \<Rightarrow> codepoint \<Rightarrow> int" where
  "content_index scanner delimiter_index la =
     (if delimiter_index \<ge> 0
      then if delimiter_index = uint (delimiter_length scanner) then -1
           else if la = sint (delimiter scanner ! nat delimiter_index) then delimiter_index + 1
           else -1
      else delimiter_index)"

partial_function (option) scan_content_loop ::
  "'s ts_runtime \<Rightarrow> mozcpp_Scanner \<Rightarrow> int \<Rightarrow> 's TSLexer \<Rightarrow> (bool \<times> 's TSLexer) option" where
  "scan_content_loop R scanner delimiter_index L =
     (if lexer_eof R L then Some (True, lexer_mark_end R L)
      else if delimiter_index \<ge> 0 \<and> delimiter_index = uint (delimiter_length scanner) \<and>
              lookahead R L = CH_DQUOTE
      then Some (True, L)
      else let i = content_index scanner delimiter_index (lookahead R L)
           in if i = -1 \<and> lookahead R L = CH_RPAREN
              then scan_content_loop R scanner 0 (lexer_advance R False (lexer_mark_end R L))
              else scan_content_loop R scanner i (lexer_advance R False L))"

definition scan_raw_string_content ::
  "'s ts_runtime \<Rightarrow> mozcpp_Scanner \<Rightarrow> 's TSLexer \<Rightarrow> (bool \<times> 's TSLexer) option" where
  "scan_raw_string_content R scanner L = scan_content_loop R scanner (-1) L"

definition tree_sitter_mozcpp_external_scanner_scan ::
  "wctype \<Rightarrow> 's ts_runtime \<Rightarrow> mozcpp_Scanner \<Rightarrow> 's TSLexer \<Rightarrow> (mozcpp_TokenType \<Rightarrow> bool) \<Rightarrow>
     (bool \<times> mozcpp_Scanner \<times> 's TSLexer) option" where
  "tree_sitter_mozcpp_external_scanner_scan W R scanner L valid_symbols =
     (if valid_symbols RAW_STRING_DELIMITER \<and> valid_symbols RAW_STRING_CONTENT
      then Some (False, scanner, L)
      else if valid_symbols RAW_STRING_DELIMITER
      then scan_raw_string_delimiter W R scanner (L\<lparr>result_symbol := mozcpp_symbol RAW_STRING_DELIMITER\<rparr>)
      else if valid_symbols RAW_STRING_CONTENT
      then map_option (\<lambda>(ok, L'). (ok, scanner, L'))
             (scan_raw_string_content R scanner (L\<lparr>result_symbol := mozcpp_symbol RAW_STRING_CONTENT\<rparr>))
      else Some (False, scanner, L))"

section \<open>Serialisation\<close>

text \<open>\<^verbatim>\<open>memcpy\<close> of an array of \<^verbatim>\<open>wchar_t\<close>, byte by byte on a little-endian machine.\<close>

unbundle bit_operations_syntax

type_synonym byte = "8 word"

definition wchar_bytes :: "wchar \<Rightarrow> byte list" where
  "wchar_bytes w = map (\<lambda>i. ucast (drop_bit (8 * i) w)) [0, 1, 2, 3]"

fun wchars_bytes :: "wchar list \<Rightarrow> byte list" where
  "wchars_bytes [] = []"
| "wchars_bytes (w # ws) = wchar_bytes w @ wchars_bytes ws"

fun bytes_wchars :: "byte list \<Rightarrow> wchar list" where
  "bytes_wchars (a # b # c # d # bs) =
     (ucast a OR push_bit 8 (ucast b) OR push_bit 16 (ucast c) OR push_bit 24 (ucast d)) # bytes_wchars bs"
| "bytes_wchars _ = []"

text \<open>
  Both functions copy between the scanner and the buffer: serialising returns the number of bytes
  and the buffer overwritten from its start. \<open>None\<close> is a copy outside an array, or a failed
  assertion.
\<close>

definition tree_sitter_mozcpp_external_scanner_serialize ::
  "mozcpp_Scanner \<Rightarrow> byte list \<Rightarrow> (nat \<times> byte list) option" where
  "tree_sitter_mozcpp_external_scanner_serialize scanner buffer =
     (let count = unat (delimiter_length scanner) * 4
      in if count \<le> 4 * length (delimiter scanner) \<and> count \<le> length buffer
         then Some (count, take count (wchars_bytes (delimiter scanner)) @ drop count buffer)
         else None)"

definition tree_sitter_mozcpp_external_scanner_deserialize ::
  "mozcpp_Scanner \<Rightarrow> byte list \<Rightarrow> nat \<Rightarrow> mozcpp_Scanner option" where
  "tree_sitter_mozcpp_external_scanner_deserialize scanner buffer n =
     (if n mod 4 = 0 \<and> n \<le> 4 * length (delimiter scanner) \<and> n \<le> length buffer
      then Some (scanner\<lparr>delimiter_length := word_of_nat (n div 4),
                         delimiter := bytes_wchars (take n buffer) @ drop (n div 4) (delimiter scanner)\<rparr>)
      else None)"

section \<open>The delimiter a state holds\<close>

definition held_delimiter :: "mozcpp_Scanner \<Rightarrow> codepoint list" where
  "held_delimiter scanner = map sint (take (unat (delimiter_length scanner)) (delimiter scanner))"

lemma held_length:
  "mozcpp_wf scanner \<Longrightarrow> length (held_delimiter scanner) = unat (delimiter_length scanner)"
  by (simp add: mozcpp_wf_def held_delimiter_def)

lemma held_nth:
  "mozcpp_wf scanner \<Longrightarrow> i < unat (delimiter_length scanner) \<Longrightarrow>
   held_delimiter scanner ! i = sint (delimiter scanner ! i)"
  by (simp add: mozcpp_wf_def held_delimiter_def)

lemma held_reset: "held_delimiter (mozcpp_reset scanner) = []" "mozcpp_wf (mozcpp_reset scanner)"
  by (simp_all add: held_delimiter_def mozcpp_reset_def mozcpp_wf_def MAX_DELIMITER_LENGTH_def)

lemma create_wf:
  "mozcpp_wf tree_sitter_mozcpp_external_scanner_create"
  "held_delimiter tree_sitter_mozcpp_external_scanner_create = []"
  by (simp_all add: tree_sitter_mozcpp_external_scanner_create_def mozcpp_wf_def held_delimiter_def
      MAX_DELIMITER_LENGTH_def)

definition in_int32 :: "codepoint \<Rightarrow> bool" where
  "in_int32 c \<longleftrightarrow> - (2 ^ 31) \<le> c \<and> c < 2 ^ 31"

lemma sint_wchar: "in_int32 c \<Longrightarrow> sint (word_of_int c :: wchar) = c"
  by (simp add: in_int32_def signed_of_int signed_take_bit_int_eq_self)

section \<open>The content\<close>

text \<open>
  The view a content scan ends in, started with \<open>k\<close> characters of the closer matched: the first
  closer's start is the marked end, and the scan stands at its quote.
\<close>

definition content_end :: "codepoint list \<Rightarrow> codepoint list \<Rightarrow> TSSymbol \<Rightarrow> view" where
  "content_end d u y =
     (case first_at (raw_closer d) u of None \<Rightarrow> ([], [], y) | Some s \<Rightarrow> (drop (length d + 1) s, s, y))"

context text_runtime
begin

lemma scan_content_step:
  assumes "mozcpp_wf scanner" and "d = held_delimiter scanner" and "text_view L = (c # cs, m, y)"
    and "k \<le> length d + 1"
  shows "scan_content_loop R scanner (int k - 1) L =
    (if k < length d + 2 \<and> 0 < k \<and> c = raw_closer d ! k
     then if k = length d + 1 then Some (True, L)
          else scan_content_loop R scanner (int (Suc k) - 1) (lexer_advance R False L)
     else if c = CH_RPAREN
     then scan_content_loop R scanner (int (Suc 0) - 1) (lexer_advance R False (lexer_mark_end R L))
     else scan_content_loop R scanner (int 0 - 1) (lexer_advance R False L))"
proof -
  have len: "uint (delimiter_length scanner) = int (length d)"
    using held_length [OF assms(1)] assms(2) by simp
  have la: "lookahead R L = c" "\<not> lexer_eof R L"
    using lookahead_view [OF assms(3)] eof_view [OF assms(3)] by simp_all
  consider "k = 0" | "k = length d + 1" | j where "k = Suc j" "j < length d"
    using assms(4) by (cases k) force+
  then show ?thesis
  proof cases
    case 1
    then show ?thesis
      by (subst scan_content_loop.simps) (simp add: la content_index_def Let_def)
  next
    case 2
    then show ?thesis
      by (subst scan_content_loop.simps) (simp add: la content_index_def Let_def len raw_closer_nth)
  next
    case 3
    have "sint (delimiter scanner ! j) = raw_closer d ! k"
      using 3 held_nth [OF assms(1), of j] held_length [OF assms(1)] assms(2)
      by (simp add: raw_closer_nth)
    with 3 show ?thesis
      by (subst scan_content_loop.simps) (auto simp: la content_index_def Let_def len add.commute)
  qed
qed

lemma scan_content_view:
  assumes "mozcpp_wf scanner" and "d = held_delimiter scanner" and "CH_RPAREN \<notin> set d"
  shows "text_view L = (xs, m, y) \<Longrightarrow> k \<le> length d + 1 \<Longrightarrow>
    0 < k \<longrightarrow> m = take k (raw_closer d) @ xs \<Longrightarrow>
    \<exists>L'. scan_content_loop R scanner (int k - 1) L = Some (True, L') \<and>
      text_view L' = content_end d (take k (raw_closer d) @ xs) y"
proof (induction xs arbitrary: L m k)
  case Nil
  have "scan_content_loop R scanner (int k - 1) L = Some (True, lexer_mark_end R L)"
    using eof_view [OF Nil.prems(1)] by (subst scan_content_loop.simps) simp
  moreover have "first_at (raw_closer d) (take k (raw_closer d)) = None"
    using Nil.prems(2) by (intro first_at_shorter) simp
  ultimately show ?case
    using mark_end_view [OF Nil.prems(1)] by (simp add: content_end_def)
next
  case (Cons c cs)
  note step = scan_content_step [OF assms(1,2) Cons.prems(1,2)]
  let ?u = "take k (raw_closer d) @ c # cs"
  have adv: "text_view (lexer_advance R False L) = (cs, m, y)"
    "text_view (lexer_advance R False (lexer_mark_end R L)) = (cs, c # cs, y)"
    using advance_view [OF Cons.prems(1)] advance_view [OF mark_end_view [OF Cons.prems(1)]] by simp_all
  consider (follow) "0 < k" "c = raw_closer d ! k" | (restart) "\<not> (0 < k \<and> c = raw_closer d ! k)" "c = CH_RPAREN"
    | (none) "\<not> (0 < k \<and> c = raw_closer d ! k)" "c \<noteq> CH_RPAREN" by blast
  then show ?case
  proof cases
    case follow
    have u: "take (Suc k) (raw_closer d) @ cs = ?u"
      using raw_closer_match [of k d cs] follow Cons.prems(2) by simp
    show ?thesis
    proof (cases "k = length d + 1")
      case True
      have "first_at (raw_closer d) ?u = Some ?u"
        using first_at_same [of "raw_closer d" cs] u True by (simp add: raw_closer_def)
      moreover have "drop (length d + 1) ?u = c # cs"
        using True by simp
      ultimately show ?thesis
        using step follow True Cons.prems by (simp add: content_end_def)
    next
      case False
      then have "\<exists>L'. scan_content_loop R scanner (int (Suc k) - 1) (lexer_advance R False L) = Some (True, L') \<and>
          text_view L' = content_end d (take (Suc k) (raw_closer d) @ cs) y"
        using Cons.prems(2,3) follow(1) False u by (intro Cons.IH [OF adv(1)]) simp_all
      then show ?thesis
        using step follow False Cons.prems(2) by (simp only: u) simp
    qed
  next
    case restart
    have "content_end d ?u y = content_end d (c # cs) y"
      unfolding content_end_def by (simp only: raw_closer_mismatch [OF assms(3) Cons.prems(2) restart(1)])
    moreover have "take (Suc 0) (raw_closer d) @ cs = c # cs"
      by (simp add: restart raw_closer_def)
    moreover have "\<exists>L'. scan_content_loop R scanner (int (Suc 0) - 1) (lexer_advance R False (lexer_mark_end R L)) =
          Some (True, L') \<and> text_view L' = content_end d (take (Suc 0) (raw_closer d) @ cs) y"
      by (rule Cons.IH [OF adv(2)]) (simp_all add: restart raw_closer_def)
    ultimately show ?thesis
      using step restart by (simp only: if_False if_True simp_thms)
  next
    case none
    have "content_end d ?u y = content_end d (c # cs) y"
      unfolding content_end_def by (simp only: raw_closer_mismatch [OF assms(3) Cons.prems(2) none(1)])
    also have "\<dots> = content_end d cs y"
      using none unfolding content_end_def by (subst first_at_skip) (simp_all add: raw_closer_def)
    finally have "content_end d ?u y = content_end d (take 0 (raw_closer d) @ cs) y"
      by simp
    moreover have "\<exists>L'. scan_content_loop R scanner (int 0 - 1) (lexer_advance R False L) = Some (True, L') \<and>
          text_view L' = content_end d (take 0 (raw_closer d) @ cs) y"
      by (rule Cons.IH [OF adv(1)]) simp_all
    ultimately show ?thesis
      using step none by (simp only: if_False if_True simp_thms)
  qed
qed

end

section \<open>The delimiter\<close>

text \<open>A character the scanner takes into an opening delimiter.\<close>

definition delimiter_char :: "wctype \<Rightarrow> codepoint \<Rightarrow> bool" where
  "delimiter_char W c \<longleftrightarrow> c \<noteq> CH_LPAREN \<and> c \<noteq> CH_BACKSLASH \<and> \<not> iswspace W c"

text \<open>Where the opening scan of \<open>xs\<close> stops when \<open>n\<close> more characters fit.\<close>

definition opening_run :: "wctype \<Rightarrow> nat \<Rightarrow> codepoint list \<Rightarrow> codepoint list" where
  "opening_run W n xs = take n (takeWhile (delimiter_char W) xs)"

definition record_char :: "codepoint \<Rightarrow> mozcpp_Scanner \<Rightarrow> mozcpp_Scanner" where
  "record_char c scanner =
     scanner\<lparr>delimiter := (delimiter scanner)[unat (delimiter_length scanner) := word_of_int c],
             delimiter_length := delimiter_length scanner + 1\<rparr>"

lemma record_char_held:
  assumes "mozcpp_wf scanner" and "unat (delimiter_length scanner) < MAX_DELIMITER_LENGTH" and "in_int32 c"
  shows "mozcpp_wf (record_char c scanner) \<and>
    unat (delimiter_length (record_char c scanner)) = Suc (unat (delimiter_length scanner)) \<and>
    held_delimiter (record_char c scanner) = held_delimiter scanner @ [c]"
proof -
  let ?n = "unat (delimiter_length scanner)"
  have n: "?n < length (delimiter scanner)" "unat (delimiter_length scanner + 1) = Suc ?n"
    using assms(1,2) by (simp_all add: mozcpp_wf_def MAX_DELIMITER_LENGTH_def unat_word_ariths)
  have "take (Suc ?n) ((delimiter scanner)[?n := word_of_int c]) = take ?n (delimiter scanner) @ [word_of_int c]"
    using n(1) by (simp add: take_Suc_conv_app_nth)
  then show ?thesis
    using assms n by (simp add: record_char_def mozcpp_wf_def held_delimiter_def sint_wchar)
qed

context text_runtime
begin

lemma scan_opening_step:
  assumes "text_view L = (xs, m, y)"
  shows "scan_opening_delimiter W R scanner L =
    (if unat (delimiter_length scanner) \<ge> MAX_DELIMITER_LENGTH \<or> xs = [] \<or> \<not> delimiter_char W (peek xs)
     then Some (unat (delimiter_length scanner) < MAX_DELIMITER_LENGTH \<and> xs \<noteq> [] \<and> peek xs = CH_LPAREN \<and>
                \<not> iswspace W CH_LPAREN \<and> delimiter_length scanner > 0, scanner, L)
     else scan_opening_delimiter W R (record_char (peek xs) scanner) (lexer_advance R False L))"
  by (subst scan_opening_delimiter.simps)
    (auto simp: lookahead_view [OF assms] eof_view [OF assms] delimiter_char_def record_char_def)

lemma scan_opening_view:
  assumes "\<not> iswspace W CH_LPAREN"
  shows "text_view L = (xs, m, y) \<Longrightarrow> mozcpp_wf scanner \<Longrightarrow> \<forall>c \<in> set xs. in_int32 c \<Longrightarrow>
    n = MAX_DELIMITER_LENGTH - unat (delimiter_length scanner) \<Longrightarrow> ds = opening_run W n xs \<Longrightarrow>
    \<exists>scanner' L'. scan_opening_delimiter W R scanner L =
        Some (length ds < n \<and> held_delimiter scanner @ ds \<noteq> [] \<and> prefix [CH_LPAREN] (drop (length ds) xs), scanner', L') \<and>
      mozcpp_wf scanner' \<and> held_delimiter scanner' = held_delimiter scanner @ ds \<and>
      text_view L' = (drop (length ds) xs, m, y)"
proof (induction xs arbitrary: L scanner n ds)
  case Nil
  then show ?case
    by (simp add: scan_opening_step [OF Nil.prems(1)] opening_run_def)
next
  case (Cons c cs)
  have pos: "held_delimiter scanner \<noteq> [] \<longleftrightarrow> 0 < unat (delimiter_length scanner)"
    using held_length [OF Cons.prems(2)] by (metis length_greater_0_conv)
  show ?case
  proof (cases "n = 0 \<or> \<not> delimiter_char W c")
    case True
    then have "ds = []"
      using Cons.prems(5) by (auto simp: opening_run_def)
    then show ?thesis
      using True Cons.prems assms pos
      by (auto simp: scan_opening_step [OF Cons.prems(1)] delimiter_char_def word_gt_0 unat_eq_0)
  next
    case False
    then obtain n' ds' where n': "n = Suc n'" "ds' = opening_run W n' cs" "ds = c # ds'"
      using Cons.prems(5) by (cases n) (auto simp: opening_run_def)
    have lt: "unat (delimiter_length scanner) < MAX_DELIMITER_LENGTH"
      using False Cons.prems(4) by simp
    have rec: "mozcpp_wf (record_char c scanner)" "n' = MAX_DELIMITER_LENGTH - unat (delimiter_length (record_char c scanner))"
      "held_delimiter (record_char c scanner) = held_delimiter scanner @ [c]"
      using record_char_held [OF Cons.prems(2) lt, of c] Cons.prems(3,4) n'(1) by simp_all
    have step: "scan_opening_delimiter W R scanner L =
        scan_opening_delimiter W R (record_char c scanner) (lexer_advance R False L)"
      using lt False by (simp add: scan_opening_step [OF Cons.prems(1)])
    from Cons.IH [OF advance_view [OF Cons.prems(1), simplified] rec(1) _ rec(2) n'(2)] Cons.prems(3)
    show ?thesis
      by (simp add: step n' rec(3))
  qed
qed

lemma scan_closing_view:
  "text_view L = (xs, m, y) \<Longrightarrow> i + n \<le> length d \<Longrightarrow> 0 \<notin> set (take n (drop i (map sint d))) \<Longrightarrow>
   \<exists>L'. scan_closing_delimiter R d i n L = Some (prefix (take n (drop i (map sint d))) xs, L') \<and>
     (prefix (take n (drop i (map sint d))) xs \<longrightarrow> text_view L' = (drop n xs, m, y))"
proof (induction n arbitrary: L xs i)
  case 0
  then show ?case by simp
next
  case (Suc n)
  have i: "i < length d" "drop i (map sint d) = sint (d ! i) # drop (Suc i) (map sint d)"
    using Suc.prems(2) Cons_nth_drop_Suc [of i "map sint d"] by simp_all
  show ?case
  proof (cases "peek xs = sint (d ! i)")
    case True
    then have xs: "xs = sint (d ! i) # tl xs"
      using Suc.prems(3) i(2) peek_nonzeroD [of xs] by auto
    from Suc.IH [OF advance_view [OF Suc.prems(1)], of "Suc i" False] Suc.prems(2,3) i True
    obtain L' where "scan_closing_delimiter R d (Suc i) n (lexer_advance R False L) =
        Some (prefix (take n (drop (Suc i) (map sint d))) (tl xs), L')"
      "prefix (take n (drop (Suc i) (map sint d))) (tl xs) \<longrightarrow> text_view L' = (drop n (tl xs), m, y)"
      by auto
    then show ?thesis
      using i True by (subst xs, subst (2) xs, subst (3) xs) (simp add: lookahead_view [OF Suc.prems(1)])
  next
    case False
    then have "\<not> prefix (take (Suc n) (drop i (map sint d))) xs"
      using i(2) by (cases xs) auto
    then show ?thesis
      using False i by (simp add: lookahead_view [OF Suc.prems(1)])
  qed
qed

end

section \<open>The round trip through the buffer\<close>

lemma wchar_bytes_join:
  "(ucast (ucast w :: byte) :: wchar) OR push_bit 8 (ucast (ucast (drop_bit 8 w) :: byte)) OR
   push_bit 16 (ucast (ucast (drop_bit 16 w) :: byte)) OR push_bit 24 (ucast (ucast (drop_bit 24 w) :: byte)) = w"
  proof (rule bit_word_eqI)
  fix n assume "n < LENGTH(32)"
  then consider "n < 8" | "8 \<le> n" "n < 16" | "16 \<le> n" "n < 24" | "24 \<le> n" "n < 32"
    by fastforce
  then show "bit ((ucast (ucast w :: byte) :: wchar) OR push_bit 8 (ucast (ucast (drop_bit 8 w) :: byte)) OR
      push_bit 16 (ucast (ucast (drop_bit 16 w) :: byte)) OR
      push_bit 24 (ucast (ucast (drop_bit 24 w) :: byte))) n = bit w n"
    by cases (simp_all add: bit_simps less_diff_conv2)
qed

lemma length_wchar_bytes: "length (wchar_bytes w) = 4"
  by (simp add: wchar_bytes_def)

lemma length_wchars_bytes: "length (wchars_bytes ws) = 4 * length ws"
  by (induction ws) (simp_all add: length_wchar_bytes)

lemma take_wchars_bytes: "take (4 * n) (wchars_bytes ws) = wchars_bytes (take n ws)"
proof (induction ws arbitrary: n)
  case Nil
  then show ?case by simp
next
  case (Cons w ws)
  then show ?case
    by (cases n) (simp_all add: length_wchar_bytes)
qed

lemma bytes_wchars_bytes: "bytes_wchars (wchars_bytes ws) = ws"
  by (induction ws) (simp_all add: wchar_bytes_def wchar_bytes_join)

lemma serialize_deserialize:
  assumes "mozcpp_wf scanner" and "mozcpp_wf target" and "64 \<le> length buffer"
  shows "\<exists>n buffer' target'.
    tree_sitter_mozcpp_external_scanner_serialize scanner buffer = Some (n, buffer') \<and>
    length buffer' = length buffer \<and> n \<le> 64 \<and>
    tree_sitter_mozcpp_external_scanner_deserialize target buffer' n = Some target' \<and> mozcpp_wf target' \<and>
    delimiter_length target' = delimiter_length scanner \<and> held_delimiter target' = held_delimiter scanner"
proof -
  let ?k = "unat (delimiter_length scanner)" and ?ws = "delimiter scanner"
  have k: "?k \<le> 16" "length ?ws = 16" "length (delimiter target) = 16"
    using assms(1,2) by (simp_all add: mozcpp_wf_def MAX_DELIMITER_LENGTH_def)
  have bytes: "take (?k * 4) (wchars_bytes ?ws) = wchars_bytes (take ?k ?ws)"
    using take_wchars_bytes [of ?k ?ws] by (simp add: mult.commute)
  then have len: "length (wchars_bytes (take ?k ?ws)) = ?k * 4"
    using k by (simp add: length_wchars_bytes)
  let ?buf = "wchars_bytes (take ?k ?ws) @ drop (?k * 4) buffer"
  have ser: "tree_sitter_mozcpp_external_scanner_serialize scanner buffer = Some (?k * 4, ?buf)"
    using k assms(3) by (simp add: tree_sitter_mozcpp_external_scanner_serialize_def Let_def bytes)
  let ?t = "target\<lparr>delimiter_length := delimiter_length scanner,
      delimiter := take ?k ?ws @ drop ?k (delimiter target)\<rparr>"
  have "tree_sitter_mozcpp_external_scanner_deserialize target ?buf (?k * 4) = Some ?t"
    using k assms(3) len
    by (simp add: tree_sitter_mozcpp_external_scanner_deserialize_def bytes_wchars_bytes)
  moreover have "mozcpp_wf ?t" "held_delimiter ?t = held_delimiter scanner"
    using k by (simp_all add: mozcpp_wf_def held_delimiter_def MAX_DELIMITER_LENGTH_def)
  ultimately show ?thesis
    using ser k assms(3) len by (intro exI [of _ "?k * 4"] exI [of _ ?buf] exI [of _ ?t]) simp
qed

section \<open>Properties\<close>

context text_runtime
begin

lemma scan_content_only:
  assumes "mozcpp_wf scanner" and "CH_RPAREN \<notin> set (held_delimiter scanner)"
    and "text_view L = (xs, m, y)" and "\<not> valid RAW_STRING_DELIMITER" and "valid RAW_STRING_CONTENT"
  shows "\<exists>L'. tree_sitter_mozcpp_external_scanner_scan W R scanner L valid = Some (True, scanner, L') \<and>
    text_view L' = content_end (held_delimiter scanner) xs 1"
proof -
  have "text_view (L\<lparr>result_symbol := 1\<rparr>) = (xs, m, 1)"
    using set_symbol_view [OF assms(3)] .
  from scan_content_view [OF assms(1) refl assms(2) this, of 0] assms(4,5)
  show ?thesis
    by (auto simp: tree_sitter_mozcpp_external_scanner_scan_def scan_raw_string_content_def)
qed

lemma scan_opening_only:
  assumes "\<not> iswspace W CH_LPAREN" and "mozcpp_wf scanner" and "held_delimiter scanner = []"
    and "text_view L = (xs, m, y)" and "\<forall>c \<in> set xs. in_int32 c" and "ds = opening_run W 16 xs"
    and "valid RAW_STRING_DELIMITER" and "\<not> valid RAW_STRING_CONTENT"
  shows "\<exists>scanner' L'. tree_sitter_mozcpp_external_scanner_scan W R scanner L valid =
        Some (length ds < 16 \<and> ds \<noteq> [] \<and> prefix [CH_LPAREN] (drop (length ds) xs), scanner', L') \<and>
      mozcpp_wf scanner' \<and> held_delimiter scanner' = ds \<and> text_view L' = (drop (length ds) xs, m, 0)"
proof -
  have len: "delimiter_length scanner = 0"
    using held_length [OF assms(2)] assms(3) by (simp add: unat_eq_0)
  have "text_view (L\<lparr>result_symbol := 0\<rparr>) = (xs, m, 0)"
    using set_symbol_view [OF assms(4)] .
  from scan_opening_view [OF assms(1) this assms(2,5), of 16 ds] assms(3,6,7,8) len
  show ?thesis
    by (simp add: tree_sitter_mozcpp_external_scanner_scan_def scan_raw_string_delimiter_def
        MAX_DELIMITER_LENGTH_def)
qed

text \<open>An opening delimiter that is empty or fills the array is refused.\<close>

lemma scan_opening_refused:
  assumes "wctype_ok W" and "mozcpp_wf scanner" and "held_delimiter scanner = []"
    and "text_view L = (d @ CH_LPAREN # after, m, y)" and "\<forall>c \<in> set (d @ CH_LPAREN # after). in_int32 c"
    and "\<forall>c \<in> set d. delimiter_char W c" and "d = [] \<or> 16 \<le> length d"
    and "valid RAW_STRING_DELIMITER" and "\<not> valid RAW_STRING_CONTENT"
  shows "\<exists>scanner' L'. tree_sitter_mozcpp_external_scanner_scan W R scanner L valid = Some (False, scanner', L')"
proof -
  have lparen: "\<not> iswspace W CH_LPAREN" "\<not> delimiter_char W CH_LPAREN"
    using assms(1) by (simp_all add: wctype_ok_def delimiter_char_def)
  have "takeWhile (delimiter_char W) (d @ CH_LPAREN # after) = d"
    using assms(6) lparen(2) by (simp add: takeWhile_append2)
  then have "take 16 d = opening_run W 16 (d @ CH_LPAREN # after)"
    by (simp add: opening_run_def)
  from scan_opening_only [OF lparen(1) assms(2-5) this assms(8,9)] show ?thesis
    using assms(7) by auto
qed

lemma scan_closing_only:
  assumes "mozcpp_wf scanner" and "held_delimiter scanner \<noteq> []" and "0 \<notin> set (held_delimiter scanner)"
    and "text_view L = (held_delimiter scanner @ xs, m, y)"
    and "valid RAW_STRING_DELIMITER" and "\<not> valid RAW_STRING_CONTENT"
  shows "\<exists>L'. tree_sitter_mozcpp_external_scanner_scan W R scanner L valid = Some (True, mozcpp_reset scanner, L') \<and>
    text_view L' = (xs, m, 0)"
proof -
  let ?n = "unat (delimiter_length scanner)"
  have n: "0 < delimiter_length scanner" "?n \<le> length (delimiter scanner)"
    using held_length [OF assms(1)] assms(1,2) by (auto simp: mozcpp_wf_def word_gt_0 unat_eq_0)
  have held: "take ?n (map sint (delimiter scanner)) = held_delimiter scanner"
    by (simp add: held_delimiter_def take_map)
  have "text_view (L\<lparr>result_symbol := 0\<rparr>) = (held_delimiter scanner @ xs, m, 0)"
    using set_symbol_view [OF assms(4)] .
  from scan_closing_view [OF this, of 0 ?n "delimiter scanner"] n(2) assms(3) held
  obtain L' where "scan_closing_delimiter R (delimiter scanner) 0 ?n (L\<lparr>result_symbol := 0\<rparr>) = Some (True, L')"
      "text_view L' = (drop ?n (held_delimiter scanner @ xs), m, 0)"
    by auto
  moreover have "drop ?n (held_delimiter scanner @ xs) = xs"
    using held_length [OF assms(1)] by simp
  ultimately show ?thesis
    using n(1) assms(5,6)
    by (simp add: tree_sitter_mozcpp_external_scanner_scan_def scan_raw_string_delimiter_def)
qed

end

text \<open>
  The content of a raw string: on every text the scan returns a token (it never fails
  and always ends), the token ends where the first \<^verbatim>\<open>)delimiter"\<close> begins, or at
  the end of the input when there is none, and the state is unchanged, for every delimiter without a
  closing parenthesis.
\<close>

theorem mozcpp_content_correct:
  assumes "text_runtime R ahead marked" and "view_of ahead marked L = (xs, m, y)"
    and "mozcpp_wf scanner" and "CH_RPAREN \<notin> set (held_delimiter scanner)"
    and "\<not> valid RAW_STRING_DELIMITER" and "valid RAW_STRING_CONTENT"
  shows "\<exists>L'. tree_sitter_mozcpp_external_scanner_scan W R scanner L valid = Some (True, scanner, L') \<and>
    view_of ahead marked L' =
      (case first_at (raw_closer (held_delimiter scanner)) xs of
         None \<Rightarrow> ([], [], 1)
       | Some s \<Rightarrow> (drop (length (held_delimiter scanner) + 1) s, s, 1))"
  using text_runtime.scan_content_only [OF assms(1,3,4,2,5,6)] by (simp only: content_end_def)

theorem mozcpp_content_correct_witness:
  "\<exists>L'. tree_sitter_mozcpp_external_scanner_scan C_wctype cursor_runtime tree_sitter_mozcpp_external_scanner_create
      (text_lexer [CH_a, CH_RPAREN, CH_DQUOTE, CH_b]) (\<lambda>t. t = RAW_STRING_CONTENT) =
        Some (True, tree_sitter_mozcpp_external_scanner_create, L') \<and>
    view_of cur_ahead cur_marked L' = ([CH_DQUOTE, CH_b], [CH_RPAREN, CH_DQUOTE, CH_b], 1)"
  using mozcpp_content_correct [OF cursor_text_runtime text_lexer_view create_wf(1),
      of "\<lambda>t. t = RAW_STRING_CONTENT" C_wctype "[CH_a, CH_RPAREN, CH_DQUOTE, CH_b]"]
  by (simp add: create_wf raw_closer_def)

text \<open>
  Property C15. A whole raw string with a delimiter. A delimiter of 1 to 15 characters passes; one of 16
  or more, although the standard and the constant's comment allow 16, and an empty one (where the grammar
  has no delimiter token) are refused at once. The characters of a delimiter are those C++ allows: no
  white space, parenthesis or backslash, and no NUL. On \<^verbatim>\<open>delimiter(\<close> the delimiter scan records the
  delimiter and stops at the parenthesis; with that state, the content scan of any text holding
  \<^verbatim>\<open>content)delimiter"\<close>, whose content holds no earlier closer, ends the content token
  exactly there; and the delimiter scan on what follows the closing parenthesis accepts the same
  delimiter and clears the state. Between the scans the state passes through the serialised
  buffer into whatever state the scanner is in, as the runtime does it.
\<close>

theorem mozcpp_raw_string:
  assumes run: "text_runtime R ahead marked" and W: "wctype_ok W"
    and delim: "\<forall>c \<in> set d. delimiter_char W c \<and> c \<notin> {0, CH_RPAREN}"
    and int32: "\<forall>c \<in> set (d @ CH_LPAREN # after). in_int32 c"
    and first: "first_at (raw_closer d) (content @ raw_closer d @ rest) = Some (raw_closer d @ rest)"
    and L1: "view_of ahead marked L1 = (d @ CH_LPAREN # after, m1, y1)"
    and L2: "view_of ahead marked L2 = (content @ raw_closer d @ rest, m2, y2)"
    and L3: "view_of ahead marked L3 = (d @ CH_DQUOTE # rest, m3, y3)"
    and fresh: "mozcpp_wf scanner0" "held_delimiter scanner0 = []" "mozcpp_wf other1" "mozcpp_wf other2"
    and buf: "64 \<le> length buffer"
    and delim_valid: "validd RAW_STRING_DELIMITER" "\<not> validd RAW_STRING_CONTENT"
    and content_valid: "\<not> validc RAW_STRING_DELIMITER" "validc RAW_STRING_CONTENT"
  shows "if d \<noteq> [] \<and> length d < 16
    then \<exists>s1 s1' s2 s2' L1' L2' L3' n1 b1 n2 b2.
      tree_sitter_mozcpp_external_scanner_scan W R scanner0 L1 validd = Some (True, s1, L1') \<and>
      view_of ahead marked L1' = (CH_LPAREN # after, m1, 0) \<and>
      tree_sitter_mozcpp_external_scanner_serialize s1 buffer = Some (n1, b1) \<and>
      tree_sitter_mozcpp_external_scanner_deserialize other1 b1 n1 = Some s1' \<and>
      tree_sitter_mozcpp_external_scanner_scan W R s1' L2 validc = Some (True, s2, L2') \<and>
      view_marked (view_of ahead marked L2') = raw_closer d @ rest \<and>
      tree_sitter_mozcpp_external_scanner_serialize s2 buffer = Some (n2, b2) \<and>
      tree_sitter_mozcpp_external_scanner_deserialize other2 b2 n2 = Some s2' \<and>
      tree_sitter_mozcpp_external_scanner_scan W R s2' L3 validd = Some (True, mozcpp_reset s2', L3') \<and>
      view_of ahead marked L3' = (CH_DQUOTE # rest, m3, 0)
    else \<exists>s' L'. tree_sitter_mozcpp_external_scanner_scan W R scanner0 L1 validd = Some (False, s', L')"
proof (cases "d \<noteq> [] \<and> length d < 16")
  case False
  from text_runtime.scan_opening_refused [OF run W fresh(1,2) L1 int32 _ _ delim_valid] False show ?thesis
    using delim by auto
next
  case True
  have lparen: "\<not> iswspace W CH_LPAREN" "\<not> delimiter_char W CH_LPAREN"
    using W by (simp_all add: wctype_ok_def delimiter_char_def)
  have "takeWhile (delimiter_char W) (d @ CH_LPAREN # after) = d"
    using delim lparen(2) by (simp add: takeWhile_append2)
  then have run1: "d = opening_run W 16 (d @ CH_LPAREN # after)"
    using True by (simp add: opening_run_def)
  obtain s1 L1' where s1: "tree_sitter_mozcpp_external_scanner_scan W R scanner0 L1 validd = Some (True, s1, L1')"
      "mozcpp_wf s1" "held_delimiter s1 = d" "view_of ahead marked L1' = (CH_LPAREN # after, m1, 0)"
    using text_runtime.scan_opening_only
      [OF run lparen(1) fresh(1,2) L1 int32 run1 delim_valid] True by auto
  obtain n1 b1 s1' where s1': "tree_sitter_mozcpp_external_scanner_serialize s1 buffer = Some (n1, b1)"
      "tree_sitter_mozcpp_external_scanner_deserialize other1 b1 n1 = Some s1'" "mozcpp_wf s1'" "held_delimiter s1' = d"
    using serialize_deserialize [OF s1(2) fresh(3) buf] s1(3) by auto
  obtain L2' where L2': "tree_sitter_mozcpp_external_scanner_scan W R s1' L2 validc = Some (True, s1', L2')"
      "view_of ahead marked L2' = content_end d (content @ raw_closer d @ rest) 1"
    using text_runtime.scan_content_only [OF run s1'(3) _ L2 content_valid] s1'(4) delim by auto
  obtain n2 b2 s2' where s2': "tree_sitter_mozcpp_external_scanner_serialize s1' buffer = Some (n2, b2)"
      "tree_sitter_mozcpp_external_scanner_deserialize other2 b2 n2 = Some s2'" "mozcpp_wf s2'" "held_delimiter s2' = d"
    using serialize_deserialize [OF s1'(3) fresh(4) buf] s1'(4) by auto
  have "\<exists>L3'. tree_sitter_mozcpp_external_scanner_scan W R s2' L3 validd = Some (True, mozcpp_reset s2', L3') \<and>
      view_of ahead marked L3' = (CH_DQUOTE # rest, m3, 0)"
    by (rule text_runtime.scan_closing_only [OF run s2'(3) _ _ _ delim_valid])
      (use s2'(4) True delim L3 in auto)
  then show ?thesis
    using s1(1,4) s1'(1,2) L2' s2'(1,2) first True by (auto simp: content_end_def)
qed

theorem mozcpp_raw_string_witness:
  "\<exists>s1 L1'. tree_sitter_mozcpp_external_scanner_scan C_wctype cursor_runtime
      tree_sitter_mozcpp_external_scanner_create (text_lexer [CH_a, CH_LPAREN, CH_b])
      (\<lambda>t. t = RAW_STRING_DELIMITER) = Some (True, s1, L1') \<and>
    view_of cur_ahead cur_marked L1' = ([CH_LPAREN, CH_b], [CH_a, CH_LPAREN, CH_b], 0)"
proof -
  have "\<forall>c \<in> set [CH_a]. delimiter_char C_wctype c \<and> c \<notin> {0, CH_RPAREN}"
    by (simp add: delimiter_char_def C_wctype_simps)
  moreover have "\<forall>c \<in> set ([CH_a] @ CH_LPAREN # [CH_b]). in_int32 c"
    by (simp add: in_int32_def)
  moreover have "first_at (raw_closer [CH_a]) ([CH_b] @ raw_closer [CH_a] @ []) = Some (raw_closer [CH_a] @ [])"
    by (simp add: raw_closer_def)
  ultimately show ?thesis
    using mozcpp_raw_string [of cursor_runtime cur_ahead cur_marked C_wctype "[CH_a]" "[CH_b]" "[CH_b]" "[]"
        "text_lexer ([CH_a] @ CH_LPAREN # [CH_b])" "[CH_a] @ CH_LPAREN # [CH_b]" ts_builtin_sym_error
        "text_lexer ([CH_b] @ raw_closer [CH_a] @ [])" "[CH_b] @ raw_closer [CH_a] @ []" ts_builtin_sym_error
        "text_lexer ([CH_a] @ CH_DQUOTE # [])" "[CH_a] @ CH_DQUOTE # []" ts_builtin_sym_error
        tree_sitter_mozcpp_external_scanner_create tree_sitter_mozcpp_external_scanner_create
        tree_sitter_mozcpp_external_scanner_create "replicate 64 0"
        "\<lambda>t. t = RAW_STRING_DELIMITER" "\<lambda>t. t = RAW_STRING_CONTENT",
        OF cursor_text_runtime C_wctype_ok _ _ _ text_lexer_view text_lexer_view text_lexer_view
          create_wf(1) create_wf(2) create_wf(1) create_wf(1)]
    by auto
qed

text \<open>
  The scanner's state survives its serialisation: into any buffer of at least 64 bytes
  (the runtime gives 1024) it writes at most 64, and deserialising them into any well-formed state
  gives back the delimiter, whatever was there before.
\<close>

theorem mozcpp_serialize_roundtrip:
  assumes "mozcpp_wf scanner" and "mozcpp_wf target" and "length buffer = TREE_SITTER_SERIALIZATION_BUFFER_SIZE"
  shows "\<exists>n buffer' target'.
    tree_sitter_mozcpp_external_scanner_serialize scanner buffer = Some (n, buffer') \<and>
    length buffer' = length buffer \<and> n \<le> 64 \<and>
    tree_sitter_mozcpp_external_scanner_deserialize target buffer' n = Some target' \<and> mozcpp_wf target' \<and>
    delimiter_length target' = delimiter_length scanner \<and> held_delimiter target' = held_delimiter scanner"
  by (rule serialize_deserialize [OF assms(1,2)]) (simp add: assms(3) TREE_SITTER_SERIALIZATION_BUFFER_SIZE_def)

theorem mozcpp_serialize_roundtrip_witness:
  "\<exists>n buffer' target'.
    tree_sitter_mozcpp_external_scanner_serialize (record_char CH_a tree_sitter_mozcpp_external_scanner_create)
      (replicate 1024 0) = Some (n, buffer') \<and>
    tree_sitter_mozcpp_external_scanner_deserialize (record_char CH_b tree_sitter_mozcpp_external_scanner_create)
      buffer' n = Some target' \<and> held_delimiter target' = [CH_a]"
proof -
  have rec: "mozcpp_wf (record_char c tree_sitter_mozcpp_external_scanner_create) \<and>
      held_delimiter (record_char c tree_sitter_mozcpp_external_scanner_create) = [c]" if "in_int32 c" for c
    using record_char_held [OF create_wf(1), of c] that create_wf(2)
    by (simp add: tree_sitter_mozcpp_external_scanner_create_def MAX_DELIMITER_LENGTH_def)
  have "in_int32 CH_a" "in_int32 CH_b" by (simp_all add: in_int32_def)
  with mozcpp_serialize_roundtrip [of "record_char CH_a tree_sitter_mozcpp_external_scanner_create"
      "record_char CH_b tree_sitter_mozcpp_external_scanner_create" "replicate 1024 0"] rec
  show ?thesis
    by (auto simp: TREE_SITTER_SERIALIZATION_BUFFER_SIZE_def)
qed

text \<open>
  The comment on the content's loop says a single counter suffices because the delimiter
  may not contain a closing parenthesis; the delimiter scan accepts one all the same, and then the
  counter misses the closer: with the delimiter \<^verbatim>\<open>)\<close> the content
  \<^verbatim>\<open>)\<close> runs past its \<^verbatim>\<open>))"\<close> to the end of the input.
\<close>

theorem mozcpp_closer_missed:
  "\<exists>scanner L1 L2.
     tree_sitter_mozcpp_external_scanner_scan C_wctype cursor_runtime tree_sitter_mozcpp_external_scanner_create
       (text_lexer [CH_RPAREN, CH_LPAREN]) (\<lambda>t. t = RAW_STRING_DELIMITER) = Some (True, scanner, L1) \<and>
     tree_sitter_mozcpp_external_scanner_scan C_wctype cursor_runtime scanner
       (text_lexer [CH_RPAREN, CH_RPAREN, CH_RPAREN, CH_DQUOTE]) (\<lambda>t. t = RAW_STRING_CONTENT) =
         Some (True, scanner, L2) \<and>
     cur_marked (rt_state L2) = [] \<and>
     first_at (raw_closer [CH_RPAREN]) [CH_RPAREN, CH_RPAREN, CH_RPAREN, CH_DQUOTE] =
       Some [CH_RPAREN, CH_RPAREN, CH_DQUOTE]"
proof -
  let ?sc = "record_char CH_RPAREN tree_sitter_mozcpp_external_scanner_create"
  let ?L1 = "text_lexer [CH_RPAREN, CH_LPAREN]\<lparr>result_symbol := 0\<rparr>"
  let ?L2 = "text_lexer [CH_RPAREN, CH_RPAREN, CH_RPAREN, CH_DQUOTE]\<lparr>result_symbol := 1\<rparr>"
  have sc: "mozcpp_wf ?sc" "held_delimiter ?sc = [CH_RPAREN]"
    using record_char_held [OF create_wf(1), of CH_RPAREN] create_wf(2)
    by (simp_all add: tree_sitter_mozcpp_external_scanner_create_def MAX_DELIMITER_LENGTH_def in_int32_def)
  have "\<exists>L. scan_opening_delimiter C_wctype cursor_runtime tree_sitter_mozcpp_external_scanner_create ?L1 =
      Some (True, ?sc, L)"
    by (simp add: cursor.scan_opening_step [OF cursor.set_symbol_view [OF text_lexer_view]]
        cursor.scan_opening_step [OF cursor.advance_view [OF cursor.set_symbol_view [OF text_lexer_view]]]
        record_char_def tree_sitter_mozcpp_external_scanner_create_def MAX_DELIMITER_LENGTH_def
        delimiter_char_def C_wctype_simps)
  moreover have "\<exists>L. scan_content_loop cursor_runtime ?sc (int 0 - 1) ?L2 = Some (True, L) \<and> cur_marked (rt_state L) = []"
  proof -
    note v0 = cursor.set_symbol_view [OF text_lexer_view [of "[CH_RPAREN, CH_RPAREN, CH_RPAREN, CH_DQUOTE]"], of 1]
    note v1 = cursor.advance_view [OF cursor.mark_end_view [OF v0], of False, simplified]
    note v2 = cursor.advance_view [OF v1, of False, simplified]
    note v3 = cursor.advance_view [OF cursor.mark_end_view [OF v2], of False, simplified]
    note v4 = cursor.advance_view [OF v3, of False, simplified]
    note steps = cursor.scan_content_step [OF sc(1) refl, unfolded sc(2)]
    have "scan_content_loop cursor_runtime ?sc (int 0 - 1) ?L2 =
        Some (True, lexer_mark_end cursor_runtime (lexer_advance cursor_runtime False
          (lexer_advance cursor_runtime False (lexer_mark_end cursor_runtime (lexer_advance cursor_runtime False
            (lexer_advance cursor_runtime False (lexer_mark_end cursor_runtime ?L2)))))))"
      using steps [OF v0, of 0] steps [OF v1, of 1] steps [OF v2, of 2] steps [OF v3, of 1]
        cursor.eof_view [OF v4] scan_content_loop.simps [of cursor_runtime ?sc "-1"]
      by (simp add: raw_closer_def numeral_2_eq_2)
    then show ?thesis
      using cursor.mark_end_view [OF v4] by (simp add: view_of_def)
  qed
  ultimately show ?thesis
    by (auto simp: tree_sitter_mozcpp_external_scanner_scan_def scan_raw_string_delimiter_def
        scan_raw_string_content_def raw_closer_def tree_sitter_mozcpp_external_scanner_create_def)
qed

end
