(* ===== verification/Scan_Raw_String.thy ===== *)
theory Scan_Raw_String
  imports Raw_Delimiter
begin

text \<open>
  The external scanner the comment and preprocessor grammars share,
  \<^verbatim>\<open>tree-sitter-ccomment/src/scanner.cc\<close> and
  \<^verbatim>\<open>tree-sitter-preproc/src/scanner.cc\<close> (the same code but for the names of the
  exported functions): a raw string literal as one token, so that comment or directive markers inside
  it are not taken for real ones. The delimiter is a \<^verbatim>\<open>wstring\<close> local to one scan; its
  32-bit characters hold a lookahead exactly.
\<close>

section \<open>The scanner\<close>

datatype raw_TokenType = RAW_STRING_LITERAL

fun raw_symbol :: "raw_TokenType \<Rightarrow> TSSymbol" where
  "raw_symbol RAW_STRING_LITERAL = 0"

text \<open>The loop over the delimiter: the delimiter read and the lexer, or no delimiter.\<close>

partial_function (option) raw_delimiter_loop ::
  "wctype \<Rightarrow> 's ts_runtime \<Rightarrow> codepoint list \<Rightarrow> 's TSLexer \<Rightarrow> (codepoint list option \<times> 's TSLexer) option" where
  "raw_delimiter_loop W R delimiter L =
     (if lookahead R L = 0 \<or> lookahead R L = CH_BACKSLASH \<or> iswspace W (lookahead R L)
      then Some (None, L)
      else if lookahead R L = CH_LPAREN then Some (Some delimiter, lexer_advance R False L)
      else raw_delimiter_loop W R (delimiter @ [lookahead R L]) (lexer_advance R False L))"

definition raw_content_index :: "codepoint list \<Rightarrow> int \<Rightarrow> codepoint \<Rightarrow> int" where
  "raw_content_index delimiter delimiter_index la =
     (if delimiter_index \<ge> 0
      then if delimiter_index = int (length delimiter) then -1
           else if la = delimiter ! nat delimiter_index then delimiter_index + 1
           else -1
      else delimiter_index)"

partial_function (option) raw_content_loop ::
  "'s ts_runtime \<Rightarrow> codepoint list \<Rightarrow> int \<Rightarrow> 's TSLexer \<Rightarrow> (bool \<times> 's TSLexer) option" where
  "raw_content_loop R delimiter delimiter_index L =
     (if lookahead R L = 0 then Some (False, L)
      else if delimiter_index \<ge> 0 \<and> delimiter_index = int (length delimiter) \<and> lookahead R L = CH_DQUOTE
      then Some (True, lexer_advance R False L)
      else let i = raw_content_index delimiter delimiter_index (lookahead R L);
               i = (if i = -1 \<and> lookahead R L = CH_RPAREN then 0 else i)
           in raw_content_loop R delimiter i (lexer_advance R False L))"

definition raw_Scanner_scan ::
  "wctype \<Rightarrow> 's ts_runtime \<Rightarrow> 's TSLexer \<Rightarrow> (raw_TokenType \<Rightarrow> bool) \<Rightarrow> (bool \<times> 's TSLexer) option" where
  "raw_Scanner_scan W R L valid_symbols =
     Option.bind (scan_while R (iswspace W) True L) (\<lambda>L.
       let L = L\<lparr>result_symbol := raw_symbol RAW_STRING_LITERAL\<rparr>
       in if lookahead R L \<noteq> CH_R then Some (False, L)
          else let L = lexer_advance R False L
               in if lookahead R L \<noteq> CH_DQUOTE then Some (False, L)
                  else Option.bind (raw_delimiter_loop W R [] (lexer_advance R False L)) (\<lambda>(delimiter, L).
                         case delimiter of
                           None \<Rightarrow> Some (False, L)
                         | Some d \<Rightarrow> raw_content_loop R d (-1) L))"

text \<open>
  The exported functions: the scanner has no state of its own, so it serialises to nothing.
\<close>

definition tree_sitter_ccomment_external_scanner_scan ::
  "wctype \<Rightarrow> 's ts_runtime \<Rightarrow> 's TSLexer \<Rightarrow> (raw_TokenType \<Rightarrow> bool) \<Rightarrow> (bool \<times> 's TSLexer) option" where
  "tree_sitter_ccomment_external_scanner_scan W R L valid_symbols = raw_Scanner_scan W R L valid_symbols"

definition tree_sitter_preproc_external_scanner_scan ::
  "wctype \<Rightarrow> 's ts_runtime \<Rightarrow> 's TSLexer \<Rightarrow> (raw_TokenType \<Rightarrow> bool) \<Rightarrow> (bool \<times> 's TSLexer) option" where
  "tree_sitter_preproc_external_scanner_scan W R L valid_symbols = raw_Scanner_scan W R L valid_symbols"

definition tree_sitter_ccomment_external_scanner_serialize :: "'b list \<Rightarrow> nat \<times> 'b list" where
  "tree_sitter_ccomment_external_scanner_serialize buffer = (0, buffer)"

definition tree_sitter_preproc_external_scanner_serialize :: "'b list \<Rightarrow> nat \<times> 'b list" where
  "tree_sitter_preproc_external_scanner_serialize buffer = (0, buffer)"

section \<open>What it recognises\<close>

text \<open>
  The literal at the start of a text: what follows it, if there is one. A NUL ends the search, as
  the end of the input does.
\<close>

definition raw_delimiter_char :: "wctype \<Rightarrow> codepoint \<Rightarrow> bool" where
  "raw_delimiter_char W c \<longleftrightarrow> c \<noteq> 0 \<and> c \<noteq> CH_LPAREN \<and> c \<noteq> CH_BACKSLASH \<and> \<not> iswspace W c"

definition after_closer :: "codepoint list \<Rightarrow> codepoint list \<Rightarrow> codepoint list option" where
  "after_closer d xs =
     map_option (\<lambda>s. drop (length d + 2) s @ dropWhile (\<lambda>c. c \<noteq> 0) xs)
       (first_at (raw_closer d) (takeWhile (\<lambda>c. c \<noteq> 0) xs))"

definition raw_literal_rest :: "wctype \<Rightarrow> codepoint list \<Rightarrow> codepoint list option" where
  "raw_literal_rest W xs =
     (case xs of
        r # q # ys \<Rightarrow>
          (let d = takeWhile (raw_delimiter_char W) ys
           in if r = CH_R \<and> q = CH_DQUOTE
              then case drop (length d) ys of
                     p # zs \<Rightarrow> if p = CH_LPAREN then after_closer d zs else None
                   | [] \<Rightarrow> None
              else None)
      | _ \<Rightarrow> None)"

context text_runtime
begin

lemma raw_delimiter_view:
  assumes "\<not> iswspace W CH_LPAREN"
  shows "text_view L = (xs, m, y) \<Longrightarrow> ds = takeWhile (raw_delimiter_char W) xs \<Longrightarrow>
    \<exists>L'. raw_delimiter_loop W R d L =
        Some (if prefix [CH_LPAREN] (drop (length ds) xs) then Some (d @ ds) else None, L') \<and>
      (prefix [CH_LPAREN] (drop (length ds) xs) \<longrightarrow> text_view L' = (drop (Suc (length ds)) xs, m, y))"
proof (induction xs arbitrary: L d ds)
  case Nil
  then show ?case
    by (subst raw_delimiter_loop.simps) (simp add: lookahead_view)
next
  case (Cons c cs)
  note adv = advance_view [OF Cons.prems(1), of False]
  show ?case
  proof (cases "raw_delimiter_char W c")
    case True
    then have "raw_delimiter_loop W R d L = raw_delimiter_loop W R (d @ [c]) (lexer_advance R False L)"
      by (subst raw_delimiter_loop.simps) (simp add: lookahead_view [OF Cons.prems(1)] raw_delimiter_char_def)
    then show ?thesis
      using Cons.IH [OF adv [simplified] refl, of "d @ [c]"] Cons.prems(2) True by (auto split: if_splits)
  next
    case False
    then show ?thesis
      using Cons.prems(2) adv assms
      by (subst raw_delimiter_loop.simps)
        (auto simp: lookahead_view [OF Cons.prems(1)] raw_delimiter_char_def)
  qed
qed

lemma raw_content_step:
  assumes "text_view L = (c # cs, m, y)" and "k \<le> length d + 1"
  shows "raw_content_loop R d (int k - 1) L =
    (if c = 0 then Some (False, L)
     else if 0 < k \<and> c = raw_closer d ! k
     then if k = length d + 1 then Some (True, lexer_advance R False L)
          else raw_content_loop R d (int (Suc k) - 1) (lexer_advance R False L)
     else if c = CH_RPAREN then raw_content_loop R d (int (Suc 0) - 1) (lexer_advance R False L)
     else raw_content_loop R d (int 0 - 1) (lexer_advance R False L))"
proof -
  consider "k = 0" | "k = length d + 1" | j where "k = Suc j" "j < length d"
    using assms(2) by (cases k) force+
  then show ?thesis
    by cases (subst raw_content_loop.simps;
      force simp: lookahead_view [OF assms(1)] raw_content_index_def Let_def raw_closer_nth add.commute)+
qed

lemma raw_content_view:
  assumes "CH_RPAREN \<notin> set d" and "0 \<notin> set d"
  shows "text_view L = (xs, m, y) \<Longrightarrow> k \<le> length d + 1 \<Longrightarrow>
    t = take k (raw_closer d) @ takeWhile (\<lambda>c. c \<noteq> 0) xs \<Longrightarrow>
    \<exists>L'. raw_content_loop R d (int k - 1) L = Some (first_at (raw_closer d) t \<noteq> None, L') \<and>
      (\<forall>s. first_at (raw_closer d) t = Some s \<longrightarrow>
        text_view L' = (drop (length d + 2) s @ dropWhile (\<lambda>c. c \<noteq> 0) xs, m, y))"
proof (induction xs arbitrary: L k t)
  case Nil
  then have "first_at (raw_closer d) t = None"
    by (simp add: first_at_shorter)
  then show ?case
    using Nil.prems(1) by (subst raw_content_loop.simps) (simp add: lookahead_view)
next
  case (Cons c cs)
  note step = raw_content_step [OF Cons.prems(1,2)] and adv = advance_view [OF Cons.prems(1), of False, simplified]
  let ?t = "takeWhile (\<lambda>c. c \<noteq> 0) cs"
  consider (nul) "c = 0" | (follow) "c \<noteq> 0" "0 < k" "c = raw_closer d ! k"
    | (other) "c \<noteq> 0" "\<not> (0 < k \<and> c = raw_closer d ! k)" by blast
  then show ?case
  proof cases
    case nul
    then have "first_at (raw_closer d) t = None"
      using Cons.prems(2,3) by (simp add: first_at_shorter)
    with nul step show ?thesis by simp
  next
    case follow
    have t: "t = take (Suc k) (raw_closer d) @ ?t"
      using raw_closer_match [of k d ?t] follow Cons.prems(2,3) by simp
    show ?thesis
    proof (cases "k = length d + 1")
      case True
      then have "first_at (raw_closer d) t = Some (raw_closer d @ ?t)"
        using first_at_same [of "raw_closer d" ?t] t by (simp add: raw_closer_def)
      then show ?thesis
        using step follow True adv by simp
    next
      case False
      then show ?thesis
        using step follow Cons.IH [OF adv _ t] Cons.prems(2) by (simp only: if_False if_True simp_thms) simp
    qed
  next
    case other
    have "first_at (raw_closer d) t = first_at (raw_closer d) (c # ?t)"
      using raw_closer_mismatch [OF assms(1) Cons.prems(2) other(2)] Cons.prems(3) other(1) by simp
    also have "\<dots> = first_at (raw_closer d) (take (if c = CH_RPAREN then Suc 0 else 0) (raw_closer d) @ ?t)"
    proof (cases "c = CH_RPAREN")
      case True
      then show ?thesis by (simp add: raw_closer_def)
    next
      case False
      then show ?thesis by (subst first_at_skip) (simp_all add: raw_closer_def)
    qed
    finally have t: "first_at (raw_closer d) t =
        first_at (raw_closer d) (take (if c = CH_RPAREN then Suc 0 else 0) (raw_closer d) @ ?t)" .
    have "raw_content_loop R d (int k - 1) L =
        raw_content_loop R d (int (if c = CH_RPAREN then Suc 0 else 0) - 1) (lexer_advance R False L)"
      using step other by (auto simp only: if_False if_True simp_thms split: if_splits)
    then show ?thesis
      using Cons.IH [OF adv _ refl, of "if c = CH_RPAREN then Suc 0 else 0"] other(1) by (simp only: t) simp
  qed
qed

lemma raw_scan_view:
  assumes "wctype_ok W" and "text_view L = (xs, m, y)"
    and "CH_RPAREN \<notin> set (takeWhile (raw_delimiter_char W) (drop 2 (dropWhile (iswspace W) xs)))"
  shows "\<exists>L'. raw_Scanner_scan W R L valid =
      Some (raw_literal_rest W (dropWhile (iswspace W) xs) \<noteq> None, L') \<and>
    (\<forall>ys. raw_literal_rest W (dropWhile (iswspace W) xs) = Some ys \<longrightarrow> text_view L' = (ys, m, 0))"
proof -
  let ?xs = "dropWhile (iswspace W) xs"
  have W: "\<not> iswspace W 0" "\<not> iswspace W CH_LPAREN"
    using assms(1) by (simp_all add: wctype_ok_def)
  obtain L1 where L1: "scan_while R (iswspace W) True L = Some L1" "text_view L1 = (?xs, m, y)"
    using scan_while_view [OF assms(2), of "iswspace W" True] W(1) by auto
  define L2 where "L2 = L1\<lparr>result_symbol := 0\<rparr>"
  have L2: "text_view L2 = (?xs, m, 0)"
    unfolding L2_def by (rule set_symbol_view [OF L1(2)])
  define L3 where "L3 = lexer_advance R False L2"
  have L3: "text_view L3 = (tl ?xs, m, 0)"
    unfolding L3_def by (rule advance_view [OF L2])
  define L4 where "L4 = lexer_advance R False L3"
  have L4: "text_view L4 = (tl (tl ?xs), m, 0)"
    unfolding L4_def by (rule advance_view [OF L3])
  let ?d = "takeWhile (raw_delimiter_char W) (tl (tl ?xs))"
  have scan: "raw_Scanner_scan W R L valid =
      (if peek ?xs \<noteq> CH_R then Some (False, L2)
       else if peek (tl ?xs) \<noteq> CH_DQUOTE then Some (False, L3)
       else Option.bind (raw_delimiter_loop W R [] L4) (\<lambda>(delimiter, L).
              case delimiter of None \<Rightarrow> Some (False, L) | Some d \<Rightarrow> raw_content_loop R d (-1) L))"
    by (simp add: raw_Scanner_scan_def L1(1) Let_def lookahead_view [OF L2] lookahead_view [OF L3]
        L2_def [symmetric] L3_def [symmetric] L4_def [symmetric])
  show ?thesis
  proof (cases "peek ?xs = CH_R \<and> peek (tl ?xs) = CH_DQUOTE")
    case False
    then have "raw_literal_rest W ?xs = None"
      by (auto simp: raw_literal_rest_def Let_def split: list.splits)
    with False show ?thesis
      by (auto simp: scan)
  next
    case True
    then have xs: "?xs = CH_R # CH_DQUOTE # tl (tl ?xs)"
      using peek_eqD [of ?xs CH_R] peek_eqD [of "tl ?xs" CH_DQUOTE] by simp
    have d: "CH_RPAREN \<notin> set ?d" "0 \<notin> set ?d"
      using assms(3) by (auto simp: numeral_2_eq_2 drop_Suc raw_delimiter_char_def dest: set_takeWhileD)
    obtain L5 where L5: "raw_delimiter_loop W R [] L4 =
        Some (if prefix [CH_LPAREN] (drop (length ?d) (tl (tl ?xs))) then Some ?d else None, L5)"
      "prefix [CH_LPAREN] (drop (length ?d) (tl (tl ?xs))) \<longrightarrow>
        text_view L5 = (drop (Suc (length ?d)) (tl (tl ?xs)), m, 0)"
      using raw_delimiter_view [OF W(2) L4 refl, of "[]"] by auto
    show ?thesis
    proof (cases "prefix [CH_LPAREN] (drop (length ?d) (tl (tl ?xs)))")
      case False
      then have "raw_literal_rest W ?xs = None"
        by (subst xs) (auto simp: raw_literal_rest_def Let_def split: list.splits)
      with False True L5(1) show ?thesis
        by (simp add: scan)
    next
      case lparen: True
      define zs where "zs = drop (Suc (length ?d)) (tl (tl ?xs))"
      have drop: "drop (length ?d) (tl (tl ?xs)) = CH_LPAREN # zs"
        using lparen by (auto simp: zs_def prefix_def drop_Suc simp flip: tl_drop)
      then have "raw_literal_rest W ?xs = after_closer ?d zs"
        by (subst xs) (simp add: raw_literal_rest_def Let_def)
      moreover have "\<exists>L'. raw_content_loop R ?d (-1) L5 = Some (first_at (raw_closer ?d) (takeWhile (\<lambda>c. c \<noteq> 0) zs) \<noteq> None, L') \<and>
          (\<forall>s. first_at (raw_closer ?d) (takeWhile (\<lambda>c. c \<noteq> 0) zs) = Some s \<longrightarrow>
            text_view L' = (drop (length ?d + 2) s @ dropWhile (\<lambda>c. c \<noteq> 0) zs, m, 0))"
        using raw_content_view [OF d, of L5 zs m 0 0] L5(2) lparen by (simp add: zs_def)
      ultimately show ?thesis
        using True lparen L5(1) by (auto simp: scan after_closer_def)
    qed
  qed
qed

end

section \<open>Properties\<close>

text \<open>
  Property C19. The raw-string scanner of both grammars, on every text: it always ends; it accepts
  exactly when, after white space, the text starts with a complete literal, and then it stands right
  behind the literal's closing quote; the mark is not moved. The delimiter holds no closing
  parenthesis, which the language forbids it.
\<close>

theorem raw_string_literal_correct:
  assumes "text_runtime R ahead marked" and "wctype_ok W" and "view_of ahead marked L = (xs, m, y)"
    and "CH_RPAREN \<notin> set (takeWhile (raw_delimiter_char W) (drop 2 (dropWhile (iswspace W) xs)))"
  shows "tree_sitter_preproc_external_scanner_scan W R L valid =
      tree_sitter_ccomment_external_scanner_scan W R L valid \<and>
    (\<exists>ok L'. tree_sitter_ccomment_external_scanner_scan W R L valid = Some (ok, L') \<and>
      (case raw_literal_rest W (dropWhile (iswspace W) xs) of
         None \<Rightarrow> \<not> ok
       | Some ys \<Rightarrow> ok \<and> view_of ahead marked L' = (ys, m, 0)))"
  using text_runtime.raw_scan_view [OF assms(1,2,3,4), of valid]
  by (cases "raw_literal_rest W (dropWhile (iswspace W) xs)")
    (auto simp: tree_sitter_preproc_external_scanner_scan_def
      tree_sitter_ccomment_external_scanner_scan_def)

theorem raw_string_literal_correct_witness:
  "\<exists>L'. tree_sitter_ccomment_external_scanner_scan C_wctype cursor_runtime
      (text_lexer [CH_SPACE, CH_R, CH_DQUOTE, CH_LPAREN, CH_RPAREN, CH_DQUOTE, CH_b]) (\<lambda>t. True) = Some (True, L') \<and>
    view_ahead (view_of cur_ahead cur_marked L') = [CH_b]"
  using raw_string_literal_correct [OF cursor_text_runtime C_wctype_ok text_lexer_view,
      of "[CH_SPACE, CH_R, CH_DQUOTE, CH_LPAREN, CH_RPAREN, CH_DQUOTE, CH_b]" "\<lambda>t. True"]
  by (auto simp: C_wctype_simps raw_delimiter_char_def raw_literal_rest_def after_closer_def raw_closer_def)

lemma after_closer_first:
  assumes "0 \<notin> set (content @ raw_closer d)"
    and "first_at (raw_closer d) (content @ raw_closer d) = Some (raw_closer d)"
  shows "after_closer d (content @ raw_closer d @ rest) = Some rest"
proof -
  let ?t = "takeWhile (\<lambda>c. c \<noteq> 0) rest" and ?p = "raw_closer d"
  have "takeWhile (\<lambda>c. c \<noteq> 0) ((content @ ?p) @ rest) = (content @ ?p) @ ?t"
    using assms(1) by (subst takeWhile_append2) auto
  moreover have "dropWhile (\<lambda>c. c \<noteq> 0) ((content @ ?p) @ rest) = dropWhile (\<lambda>c. c \<noteq> 0) rest"
    using assms(1) by (subst dropWhile_append2) auto
  moreover have "first_at ?p ((content @ ?p) @ ?t) = Some (?p @ ?t)"
    by (rule first_at_append [OF assms(2)])
  ultimately show ?thesis
    by (simp add: after_closer_def)
qed

text \<open>
  A well-formed raw string literal is one token: on
  \<^verbatim>\<open>R"delimiter(content)delimiter"\<close>, where the content is any NUL-free text in which
  the closer does not come earlier (comment markers, quotes, directives and line ends included), the
  scanner accepts and stands at what follows the literal.
\<close>

theorem raw_string_literal_token:
  assumes "text_runtime R ahead marked" and "wctype_ok W"
    and "view_of ahead marked L = (CH_R # CH_DQUOTE # d @ CH_LPAREN # content @ raw_closer d @ rest, m, y)"
    and "\<forall>c \<in> set d. raw_delimiter_char W c \<and> c \<noteq> CH_RPAREN" and "0 \<notin> set content"
    and "first_at (raw_closer d) (content @ raw_closer d) = Some (raw_closer d)"
  shows "\<exists>L'. tree_sitter_ccomment_external_scanner_scan W R L valid = Some (True, L') \<and>
    view_of ahead marked L' = (rest, m, 0)"
proof -
  let ?xs = "CH_R # CH_DQUOTE # d @ CH_LPAREN # content @ raw_closer d @ rest"
  have ws: "dropWhile (iswspace W) ?xs = ?xs"
    using assms(2) by (simp add: wctype_ok_def)
  have tw: "takeWhile (raw_delimiter_char W) (d @ CH_LPAREN # content @ raw_closer d @ rest) = d"
    using assms(4) by (simp add: takeWhile_append2 raw_delimiter_char_def)
  have "0 \<notin> set (content @ raw_closer d)"
    using assms(4,5) by (auto simp: raw_closer_def raw_delimiter_char_def)
  then have "raw_literal_rest W ?xs = Some rest"
    using after_closer_first [OF _ assms(6)] by (simp add: raw_literal_rest_def tw)
  moreover have "CH_RPAREN \<notin> set (takeWhile (raw_delimiter_char W) (drop 2 ?xs))"
    using assms(4) by (auto simp: tw)
  ultimately show ?thesis
    using text_runtime.raw_scan_view [OF assms(1,2,3), of valid]
    by (simp only: ws) (auto simp: tree_sitter_ccomment_external_scanner_scan_def)
qed

theorem raw_string_literal_token_witness:
  "\<exists>L'. tree_sitter_ccomment_external_scanner_scan C_wctype cursor_runtime
      (text_lexer (CH_R # CH_DQUOTE # [] @ CH_LPAREN # [CH_SLASH, CH_STAR] @ raw_closer [] @ [CH_b])) (\<lambda>t. True) =
        Some (True, L') \<and> cur_ahead (rt_state L') = [CH_b]"
  using raw_string_literal_token [OF cursor_text_runtime C_wctype_ok text_lexer_view
      [of "CH_R # CH_DQUOTE # [] @ CH_LPAREN # [CH_SLASH, CH_STAR] @ raw_closer [] @ [CH_b]"], of "\<lambda>t. True"]
  by (auto simp: raw_closer_def view_of_def)

end
