(* ===== verification/Scan_Tcl.thy ===== *)
theory Scan_Tcl
  imports Lexer_Runtime
begin

text \<open>
  The Tcl external scanner, \<^verbatim>\<open>tree-sitter-tcl/src/scanner.c\<close>. It keeps no state and
  consumes nothing: it only looks at the next character, to tell whether a word goes on
  (\<^verbatim>\<open>concat\<close>) without white space.
\<close>

section \<open>The scanner\<close>

datatype tcl_TokenType = tcl_CONCAT | tcl_IMMEDIATE

fun tcl_symbol :: "tcl_TokenType \<Rightarrow> TSSymbol" where
  "tcl_symbol tcl_CONCAT = 0"
| "tcl_symbol tcl_IMMEDIATE = 1"

definition tree_sitter_tcl_external_scanner_scan ::
  "wctype \<Rightarrow> 's ts_runtime \<Rightarrow> 's TSLexer \<Rightarrow> (tcl_TokenType \<Rightarrow> bool) \<Rightarrow> bool \<times> 's TSLexer" where
  "tree_sitter_tcl_external_scanner_scan W R L valid_symbols =
     (let c = lookahead R L
      in if valid_symbols tcl_IMMEDIATE \<and> \<not> iswspace W c
         then (False, L\<lparr>result_symbol := tcl_symbol tcl_IMMEDIATE\<rparr>)
         else if valid_symbols tcl_CONCAT \<and>
                 (\<not> iswspace W c \<and> c \<noteq> CH_RPAREN \<and> c \<noteq> CH_COLON \<and> c \<noteq> CH_RBRACE \<and> c \<noteq> CH_RBRACKET)
         then (True, L\<lparr>result_symbol := tcl_symbol tcl_CONCAT\<rparr>)
         else (False, L))"

definition tree_sitter_tcl_external_scanner_create :: "unit option" where
  "tree_sitter_tcl_external_scanner_create = None"

definition tree_sitter_tcl_external_scanner_serialize :: "unit option \<Rightarrow> 'b list \<Rightarrow> nat \<times> 'b list" where
  "tree_sitter_tcl_external_scanner_serialize payload state = (0, state)"

definition tree_sitter_tcl_external_scanner_deserialize :: "unit option \<Rightarrow> 'b list \<Rightarrow> unit option" where
  "tree_sitter_tcl_external_scanner_deserialize payload state = payload"

section \<open>Properties\<close>

text \<open>The characters at which a Tcl word ends.\<close>

definition tcl_word_break :: "wctype \<Rightarrow> codepoint \<Rightarrow> bool" where
  "tcl_word_break W c \<longleftrightarrow> iswspace W c \<or> c \<in> {CH_RPAREN, CH_COLON, CH_RBRACE, CH_RBRACKET}"

text \<open>
  The Tcl scanner, in full: it consumes nothing and moves no mark; it yields the empty
  \<^verbatim>\<open>concat\<close> token exactly when that is valid and the next character goes on with the
  word, the end of input included; and where \<^verbatim>\<open>immediate\<close> is valid too it never
  yields a token, since that test comes first and fails.
\<close>

theorem tcl_scan_correct:
  assumes "text_runtime R ahead marked" and "view_of ahead marked L = (xs, m, y)"
  shows "map_prod id (view_of ahead marked) (tree_sitter_tcl_external_scanner_scan W R L valid) =
    (if valid tcl_IMMEDIATE \<and> \<not> iswspace W (peek xs) then (False, xs, m, 1)
     else if valid tcl_CONCAT \<and> \<not> tcl_word_break W (peek xs) then (True, xs, m, 0)
     else (False, xs, m, y))"
  using assms(2) text_runtime.set_symbol_view [OF assms]
  by (simp add: tree_sitter_tcl_external_scanner_scan_def text_runtime.lookahead_view [OF assms]
      Let_def tcl_word_break_def)

theorem tcl_scan_correct_witness:
  "map_prod id (view_of cur_ahead cur_marked)
     (tree_sitter_tcl_external_scanner_scan C_wctype cursor_runtime (text_lexer [CH_a]) (\<lambda>t. t = tcl_CONCAT)) =
   (True, [CH_a], [CH_a], 0)"
  using tcl_scan_correct [OF cursor_text_runtime text_lexer_view, of C_wctype "[CH_a]" "\<lambda>t. t = tcl_CONCAT"]
  by (simp add: tcl_word_break_def C_wctype_simps)

end
