(* ===== verification/Scan_Mozjs.thy ===== *)
theory Scan_Mozjs
  imports Lexer_Runtime
begin

text \<open>
  The external scanner of the JavaScript grammar, \<^verbatim>\<open>tree-sitter-mozjs/src/scanner.c\<close>:
  template characters, automatic semicolon insertion, the ternary question mark, HTML-style comments
  and JSX text. It keeps no state. The first part translates the functions of the file in their
  order; each loop is a partial function, since the runtime decides whether it ends. The second part
  gives each function a reference definition on texts, proves that the function computes it, and
  states what the reference definitions mean.
\<close>

section \<open>Tokens\<close>

datatype mozjs_TokenType =
    AUTOMATIC_SEMICOLON | TEMPLATE_CHARS | TERNARY_QMARK | HTML_COMMENT | LOGICAL_OR
  | ESCAPE_SEQUENCE | REGEX_PATTERN | JSX_TEXT

fun mozjs_symbol :: "mozjs_TokenType \<Rightarrow> TSSymbol" where
  "mozjs_symbol AUTOMATIC_SEMICOLON = 0"
| "mozjs_symbol TEMPLATE_CHARS = 1"
| "mozjs_symbol TERNARY_QMARK = 2"
| "mozjs_symbol HTML_COMMENT = 3"
| "mozjs_symbol LOGICAL_OR = 4"
| "mozjs_symbol ESCAPE_SEQUENCE = 5"
| "mozjs_symbol REGEX_PATTERN = 6"
| "mozjs_symbol JSX_TEXT = 7"

definition tree_sitter_mozjs_external_scanner_create :: "unit option" where
  "tree_sitter_mozjs_external_scanner_create = None"

definition tree_sitter_mozjs_external_scanner_serialize :: "unit option \<Rightarrow> 'b list \<Rightarrow> nat \<times> 'b list" where
  "tree_sitter_mozjs_external_scanner_serialize payload buffer = (0, buffer)"

abbreviation mozjs_advance :: "'s ts_runtime \<Rightarrow> 's TSLexer \<Rightarrow> 's TSLexer" where
  "mozjs_advance R L \<equiv> lexer_advance R False L"

abbreviation mozjs_skip :: "'s ts_runtime \<Rightarrow> 's TSLexer \<Rightarrow> 's TSLexer" where
  "mozjs_skip R L \<equiv> lexer_advance R True L"

text \<open>The line terminators the scanner knows: line feed, line separator, paragraph separator.\<close>

definition js_eol :: "codepoint \<Rightarrow> bool" where
  "js_eol c \<longleftrightarrow> c = CH_LF \<or> c = 0x2028 \<or> c = 0x2029"

section \<open>Template characters\<close>

partial_function (option) template_chars_loop ::
  "'s ts_runtime \<Rightarrow> bool \<Rightarrow> 's TSLexer \<Rightarrow> (bool \<times> 's TSLexer) option" where
  "template_chars_loop R has_content L =
     (let L = lexer_mark_end R L; c = lookahead R L
      in if c = CH_BACKTICK then Some (has_content, L)
         else if c = 0 then Some (False, L)
         else if c = CH_DOLLAR
         then let L = mozjs_advance R L
              in if lookahead R L = CH_LBRACE then Some (has_content, L)
                 else template_chars_loop R True L
         else if c = CH_BACKSLASH then Some (has_content, L)
         else template_chars_loop R True (mozjs_advance R L))"

definition scan_template_chars :: "'s ts_runtime \<Rightarrow> 's TSLexer \<Rightarrow> (bool \<times> 's TSLexer) option" where
  "scan_template_chars R L =
     template_chars_loop R False (L\<lparr>result_symbol := mozjs_symbol TEMPLATE_CHARS\<rparr>)"

section \<open>White space and comments\<close>

datatype WhitespaceResult = WS_REJECT | WS_NO_NEWLINE | WS_ACCEPT

text \<open>
  The inside of a block comment: whether it was closed, and whether a line ended in it
  (\<^verbatim>\<open>saw_block_newline\<close>).
\<close>

partial_function (option) block_comment_loop ::
  "'s ts_runtime \<Rightarrow> bool \<Rightarrow> 's TSLexer \<Rightarrow> (bool \<times> bool \<times> 's TSLexer) option" where
  "block_comment_loop R saw_block_newline L =
     (if lookahead R L = 0 then Some (False, saw_block_newline, L)
      else if lookahead R L = CH_STAR
      then let L = mozjs_skip R L
           in if lookahead R L = CH_SLASH then Some (True, saw_block_newline, mozjs_skip R L)
              else block_comment_loop R saw_block_newline L
      else if js_eol (lookahead R L) then block_comment_loop R True (mozjs_skip R L)
      else block_comment_loop R saw_block_newline (mozjs_skip R L))"

partial_function (option) whitespace_loop ::
  "wctype \<Rightarrow> 's ts_runtime \<Rightarrow> bool \<Rightarrow> bool \<Rightarrow> bool \<Rightarrow> 's TSLexer \<Rightarrow> (WhitespaceResult \<times> bool \<times> 's TSLexer) option" where
  "whitespace_loop W R consume saw_block_newline scanned_comment L =
     Option.bind (scan_while R (iswspace W) True L) (\<lambda>L.
       if lookahead R L = CH_SLASH
       then let L = mozjs_skip R L
            in if lookahead R L = CH_SLASH
               then Option.bind (scan_while R (\<lambda>c. c \<noteq> 0 \<and> \<not> js_eol c) True (mozjs_skip R L)) (\<lambda>L.
                      whitespace_loop W R consume saw_block_newline True L)
               else if lookahead R L = CH_STAR
               then Option.bind (block_comment_loop R saw_block_newline (mozjs_skip R L)) (\<lambda>(closed, saw, L).
                      if closed
                      then if lookahead R L \<noteq> CH_SLASH \<and> \<not> consume
                           then Some (if saw then WS_ACCEPT else WS_NO_NEWLINE, True, L)
                           else whitespace_loop W R consume saw True L
                      else whitespace_loop W R consume saw scanned_comment L)
               else Some (WS_REJECT, scanned_comment, L)
       else Some (WS_ACCEPT, scanned_comment, L))"

definition scan_whitespace_and_comments ::
  "wctype \<Rightarrow> 's ts_runtime \<Rightarrow> 's TSLexer \<Rightarrow> bool \<Rightarrow> bool \<Rightarrow> (WhitespaceResult \<times> bool \<times> 's TSLexer) option" where
  "scan_whitespace_and_comments W R L scanned_comment consume =
     whitespace_loop W R consume False scanned_comment L"

section \<open>Automatic semicolons\<close>

text \<open>
  The first loop looks for the line end. \<open>Some ok\<close> is an answer, \<open>None\<close> the
  \<^verbatim>\<open>break\<close> at a line end.
\<close>

partial_function (option) semicolon_line_loop ::
  "wctype \<Rightarrow> 's ts_runtime \<Rightarrow> bool \<Rightarrow> bool \<Rightarrow> 's TSLexer \<Rightarrow> (bool option \<times> bool \<times> 's TSLexer) option" where
  "semicolon_line_loop W R comment_condition scanned_comment L =
     (if lookahead R L = 0 then Some (Some True, scanned_comment, L)
      else Option.bind
        (if lookahead R L = CH_SLASH
         then map_option (\<lambda>(result, scanned, L).
                (if result = WS_REJECT then Some False
                 else if result = WS_ACCEPT \<and> comment_condition \<and>
                         lookahead R L \<noteq> CH_COMMA \<and> lookahead R L \<noteq> CH_EQUALS then Some True
                 else None, scanned, L))
                (scan_whitespace_and_comments W R L scanned_comment False)
         else Some (None, scanned_comment, L))
        (\<lambda>(answer, scanned, L).
           if answer \<noteq> None then Some (answer, scanned, L)
           else if lookahead R L = CH_RBRACE then Some (Some True, scanned, L)
           else if lexer_is_at_included_range_start R L then Some (Some True, scanned, L)
           else if js_eol (lookahead R L) then Some (None, scanned, L)
           else if \<not> iswspace W (lookahead R L) then Some (Some False, scanned, L)
           else semicolon_line_loop W R comment_condition scanned (mozjs_skip R L)))"

text \<open>The loop over \<^verbatim>\<open>"stanceof"\<close>: a character that differs is an answer.\<close>

fun instanceof_loop :: "'s ts_runtime \<Rightarrow> codepoint list \<Rightarrow> 's TSLexer \<Rightarrow> bool option \<times> 's TSLexer" where
  "instanceof_loop R [] L = (None, L)"
| "instanceof_loop R (c # cs) L =
     (if lookahead R L \<noteq> c then (Some True, L) else instanceof_loop R cs (mozjs_skip R L))"

definition js_stanceof :: "codepoint list" where
  "js_stanceof = [CH_s, CH_t, CH_a, CH_n, CH_c, CH_e, CH_o, CH_f]"

text \<open>The characters before which no semicolon is inserted: the first group of cases of the switch.\<close>

definition js_continuing :: "codepoint list" where
  "js_continuing =
     [CH_BACKTICK, CH_COMMA, CH_COLON, CH_SEMICOLON, CH_STAR, CH_PERCENT, CH_GT, CH_LT, CH_EQUALS,
      CH_LBRACKET, CH_LPAREN, CH_QMARK, CH_CARET, CH_BAR, CH_AMP, CH_SLASH]"

definition semicolon_switch :: "wctype \<Rightarrow> 's ts_runtime \<Rightarrow> 's TSLexer \<Rightarrow> bool \<times> 's TSLexer" where
  "semicolon_switch W R L =
     (let c = lookahead R L; L1 = mozjs_skip R L
      in if c \<in> set js_continuing then (False, L)
         else if c = CH_DOT then (iswdigit W (lookahead R L1), L1)
         else if c = CH_PLUS then (lookahead R L1 = CH_PLUS, L1)
         else if c = CH_MINUS then (lookahead R L1 = CH_MINUS, L1)
         else if c = CH_BANG then (lookahead R L1 \<noteq> CH_EQUALS, L1)
         else if c = CH_i
         then if lookahead R L1 \<noteq> CH_n then (True, L1)
              else let L2 = mozjs_skip R L1
                   in if \<not> iswalpha W (lookahead R L2) then (False, L2)
                      else (case instanceof_loop R js_stanceof L2 of
                              (Some answer, L3) \<Rightarrow> (answer, L3)
                            | (None, L3) \<Rightarrow> (iswalpha W (lookahead R L3), L3))
         else (True, L))"

definition scan_automatic_semicolon ::
  "wctype \<Rightarrow> 's ts_runtime \<Rightarrow> 's TSLexer \<Rightarrow> bool \<Rightarrow> bool \<Rightarrow> (bool \<times> bool \<times> 's TSLexer) option" where
  "scan_automatic_semicolon W R L comment_condition scanned_comment =
     Option.bind
       (semicolon_line_loop W R comment_condition scanned_comment
         (lexer_mark_end R (L\<lparr>result_symbol := mozjs_symbol AUTOMATIC_SEMICOLON\<rparr>)))
       (\<lambda>(answer, scanned, L).
         case answer of
           Some ok \<Rightarrow> Some (ok, scanned, L)
         | None \<Rightarrow>
             Option.bind (scan_whitespace_and_comments W R (mozjs_skip R L) scanned True)
               (\<lambda>(result, scanned, L).
                 if result = WS_REJECT then Some (False, scanned, L)
                 else let (ok, L) = semicolon_switch W R L in Some (ok, scanned, L)))"

section \<open>The other tokens\<close>

definition scan_ternary_qmark :: "wctype \<Rightarrow> 's ts_runtime \<Rightarrow> 's TSLexer \<Rightarrow> (bool \<times> 's TSLexer) option" where
  "scan_ternary_qmark W R L =
     map_option (\<lambda>L.
       if lookahead R L = CH_QMARK
       then let L = mozjs_advance R L
            in if lookahead R L = CH_QMARK then (False, L)
               else let L = (lexer_mark_end R L)\<lparr>result_symbol := mozjs_symbol TERNARY_QMARK\<rparr>
                    in if lookahead R L = CH_DOT
                       then let L = mozjs_advance R L in (iswdigit W (lookahead R L), L)
                       else (True, L)
       else (False, L))
       (scan_while R (iswspace W) True L)"

text \<open>The loops over \<^verbatim>\<open>comment_start\<close> and \<^verbatim>\<open>comment_end\<close>.\<close>

fun html_marker_loop :: "'s ts_runtime \<Rightarrow> codepoint list \<Rightarrow> 's TSLexer \<Rightarrow> bool \<times> 's TSLexer" where
  "html_marker_loop R [] L = (True, L)"
| "html_marker_loop R (c # cs) L =
     (if lookahead R L \<noteq> c then (False, L) else html_marker_loop R cs (mozjs_advance R L))"

definition comment_start :: "codepoint list" where
  "comment_start = [CH_LT, CH_BANG, CH_MINUS, CH_MINUS]"

definition comment_end :: "codepoint list" where
  "comment_end = [CH_MINUS, CH_MINUS, CH_GT]"

definition scan_html_comment :: "wctype \<Rightarrow> 's ts_runtime \<Rightarrow> 's TSLexer \<Rightarrow> (bool \<times> 's TSLexer) option" where
  "scan_html_comment W R L =
     Option.bind (scan_while R (\<lambda>c. iswspace W c \<or> c = 0x2028 \<or> c = 0x2029) True L) (\<lambda>L.
       let (ok, L) =
         (if lookahead R L = CH_LT then html_marker_loop R comment_start L
          else if lookahead R L = CH_MINUS then html_marker_loop R comment_end L
          else (False, L))
       in if \<not> ok then Some (False, L)
          else map_option
                 (\<lambda>L. (True, lexer_mark_end R (L\<lparr>result_symbol := mozjs_symbol HTML_COMMENT\<rparr>)))
                 (scan_while R (\<lambda>c. c \<noteq> 0 \<and> \<not> js_eol c) False L))"

definition jsx_stop :: "codepoint \<Rightarrow> bool" where
  "jsx_stop c \<longleftrightarrow> c \<in> {0, CH_LT, CH_GT, CH_LBRACE, CH_RBRACE, CH_AMP}"

partial_function (option) jsx_text_loop ::
  "wctype \<Rightarrow> 's ts_runtime \<Rightarrow> bool \<Rightarrow> bool \<Rightarrow> 's TSLexer \<Rightarrow> (bool \<times> 's TSLexer) option" where
  "jsx_text_loop W R saw_text at_newline L =
     (if \<not> jsx_stop (lookahead R L)
      then let is_wspace = iswspace W (lookahead R L);
               (saw_text, at_newline) =
                 (if lookahead R L = CH_LF then (saw_text, True)
                  else let at_newline = (at_newline \<and> is_wspace)
                       in (saw_text \<or> \<not> at_newline, at_newline))
           in jsx_text_loop W R saw_text at_newline (mozjs_advance R L)
      else Some (saw_text, L\<lparr>result_symbol := mozjs_symbol JSX_TEXT\<rparr>))"

definition scan_jsx_text :: "wctype \<Rightarrow> 's ts_runtime \<Rightarrow> 's TSLexer \<Rightarrow> (bool \<times> 's TSLexer) option" where
  "scan_jsx_text W R L = jsx_text_loop W R False False L"

section \<open>The entry point\<close>

definition mozjs_scan_rest ::
  "wctype \<Rightarrow> 's ts_runtime \<Rightarrow> 's TSLexer \<Rightarrow> (mozjs_TokenType \<Rightarrow> bool) \<Rightarrow> (bool \<times> 's TSLexer) option" where
  "mozjs_scan_rest W R L valid_symbols =
     (if valid_symbols AUTOMATIC_SEMICOLON
      then Option.bind (scan_automatic_semicolon W R L (\<not> valid_symbols LOGICAL_OR) False)
             (\<lambda>(ret, scanned_comment, L).
               if \<not> ret \<and> \<not> scanned_comment \<and> valid_symbols TERNARY_QMARK \<and> lookahead R L = CH_QMARK
               then scan_ternary_qmark W R L
               else Some (ret, L))
      else if valid_symbols TERNARY_QMARK then scan_ternary_qmark W R L
      else if valid_symbols HTML_COMMENT \<and> \<not> valid_symbols LOGICAL_OR \<and>
              \<not> valid_symbols ESCAPE_SEQUENCE \<and> \<not> valid_symbols REGEX_PATTERN
      then scan_html_comment W R L
      else Some (False, L))"

definition tree_sitter_mozjs_external_scanner_scan ::
  "wctype \<Rightarrow> 's ts_runtime \<Rightarrow> 's TSLexer \<Rightarrow> (mozjs_TokenType \<Rightarrow> bool) \<Rightarrow> (bool \<times> 's TSLexer) option" where
  "tree_sitter_mozjs_external_scanner_scan W R L valid_symbols =
     (if valid_symbols TEMPLATE_CHARS
      then if valid_symbols AUTOMATIC_SEMICOLON then Some (False, L) else scan_template_chars R L
      else if valid_symbols JSX_TEXT
      then Option.bind (scan_jsx_text W R L)
             (\<lambda>(ok, L). if ok then Some (True, L) else mozjs_scan_rest W R L valid_symbols)
      else mozjs_scan_rest W R L valid_symbols)"

section \<open>Reference definitions on texts\<close>

text \<open>Where a template's characters end, and whether they end there properly (not at a NUL).\<close>

fun template_end :: "codepoint list \<Rightarrow> bool \<times> codepoint list" where
  "template_end [] = (False, [])"
| "template_end (c # cs) =
     (if c = CH_BACKTICK \<or> c = CH_BACKSLASH \<or> c = CH_DOLLAR \<and> peek cs = CH_LBRACE then (True, c # cs)
      else if c = 0 then (False, c # cs)
      else template_end cs)"

text \<open>The inside of a block comment: closed or not, a line end seen, and what follows.\<close>

fun js_block :: "bool \<Rightarrow> codepoint list \<Rightarrow> bool \<times> bool \<times> codepoint list" where
  "js_block saw [] = (False, saw, [])"
| "js_block saw (c # cs) =
     (if c = 0 then (False, saw, c # cs)
      else if c = CH_STAR then (if peek cs = CH_SLASH then (True, saw, tl cs) else js_block saw cs)
      else js_block (saw \<or> js_eol c) cs)"

abbreviation js_in_line :: "codepoint \<Rightarrow> bool" where
  "js_in_line c \<equiv> c \<noteq> 0 \<and> \<not> js_eol c"

lemma js_block_length: "length (snd (snd (js_block saw xs))) \<le> length xs"
  by (induction saw xs rule: js_block.induct) auto

lemma js_block_length_eq: "js_block saw xs = (closed, saw', ys) \<Longrightarrow> length ys \<le> length xs"
  using js_block_length [of saw xs] by simp

function js_blank ::
  "wctype \<Rightarrow> bool \<Rightarrow> bool \<Rightarrow> bool \<Rightarrow> codepoint list \<Rightarrow> WhitespaceResult \<times> bool \<times> codepoint list" where
  "js_blank W consume saw scanned xs =
     (let ys = dropWhile (iswspace W) xs
      in if peek ys = CH_SLASH
         then let zs = tl ys
              in if peek zs = CH_SLASH then js_blank W consume saw True (dropWhile js_in_line (tl zs))
                 else if peek zs = CH_STAR
                 then (case js_block saw (tl zs) of (closed, saw', rest) \<Rightarrow>
                         if closed
                         then if peek rest \<noteq> CH_SLASH \<and> \<not> consume
                              then (if saw' then WS_ACCEPT else WS_NO_NEWLINE, True, rest)
                              else js_blank W consume saw' True rest
                         else js_blank W consume saw' scanned rest)
                 else (WS_REJECT, scanned, zs)
         else (WS_ACCEPT, scanned, ys))"
  by pat_completeness auto

lemma peek_tl_shorter: "peek ys = c \<Longrightarrow> c \<noteq> 0 \<Longrightarrow> length (tl ys) < length ys"
  by (cases ys) auto

lemma blank_shorter:
  assumes "peek (dropWhile P xs) = CH_SLASH" and "length ys \<le> length (tl (tl (dropWhile P xs)))"
  shows "length ys < length xs"
proof -
  have "length (tl (dropWhile P xs)) < length (dropWhile P xs)"
    using peek_tl_shorter [OF assms(1)] by simp
  moreover have "length (dropWhile P xs) \<le> length xs"
    by (rule length_dropWhile_le)
  ultimately show ?thesis
    using assms(2) by simp
qed

termination js_blank
  by (relation "measure (\<lambda>(W, consume, saw, scanned, xs). length xs)")
    (auto intro!: blank_shorter order.trans [OF length_dropWhile_le] dest: js_block_length_eq [OF sym]
      simp del: length_tl)

declare js_blank.simps [simp del]

lemma js_blank_length:
  "js_blank W consume saw scanned xs = (result, scanned', rest) \<Longrightarrow> length rest \<le> length xs"
proof (induction "length xs" arbitrary: xs saw scanned rule: less_induct)
  case less
  let ?ys = "dropWhile (iswspace W) xs"
  note blank = js_blank.simps [of W consume saw scanned xs]
  have ys: "length ?ys \<le> length xs"
    by (rule length_dropWhile_le)
  consider (stop) "\<not> (peek ?ys = CH_SLASH \<and> (peek (tl ?ys) = CH_SLASH \<or> peek (tl ?ys) = CH_STAR))"
    | (line) "peek ?ys = CH_SLASH" "peek (tl ?ys) = CH_SLASH"
    | (block) "peek ?ys = CH_SLASH" "peek (tl ?ys) = CH_STAR" by blast
  then show ?case
  proof cases
    case stop
    then show ?thesis
      using less.prems ys by (auto simp: blank Let_def split: if_splits)
  next
    case line
    have "length (dropWhile js_in_line (tl (tl ?ys))) < length xs"
      by (rule blank_shorter [OF line(1) length_dropWhile_le])
    from less.hyps [OF this] this show ?thesis
      using less.prems line by (fastforce simp: blank Let_def)
  next
    case block
    obtain closed saw' rest' where jb: "js_block saw (tl (tl ?ys)) = (closed, saw', rest')"
      by (metis prod_cases3)
    have "length rest' < length xs"
      by (rule blank_shorter [OF block(1) js_block_length_eq [OF jb]])
    from less.hyps [OF this, of saw' True] less.hyps [OF this, of saw' scanned] this show ?thesis
      using less.prems block by (auto simp: blank jb Let_def split: if_splits)
  qed
qed

text \<open>Whether a semicolon is inserted at a line end before the text \<open>u\<close>.\<close>

definition js_keyword :: "wctype \<Rightarrow> codepoint list \<Rightarrow> codepoint list \<Rightarrow> bool" where
  "js_keyword W kw u \<longleftrightarrow> prefix kw u \<and> \<not> iswalpha W (peek (drop (length kw) u))"

fun asi_before :: "wctype \<Rightarrow> codepoint list \<Rightarrow> bool" where
  "asi_before W [] = True"
| "asi_before W (c # cs) =
     (if c \<in> set js_continuing then False
      else if c = CH_DOT then iswdigit W (peek cs)
      else if c = CH_PLUS then peek cs = CH_PLUS
      else if c = CH_MINUS then peek cs = CH_MINUS
      else if c = CH_BANG then peek cs \<noteq> CH_EQUALS
      else \<not> js_keyword W [CH_i, CH_n] (c # cs) \<and> \<not> js_keyword W ([CH_i, CH_n] @ js_stanceof) (c # cs))"

text \<open>Where the scanner stands when it has found that no semicolon is inserted.\<close>

definition asi_stop :: "wctype \<Rightarrow> codepoint list \<Rightarrow> codepoint list" where
  "asi_stop W u =
     (if peek u \<in> {CH_DOT, CH_PLUS, CH_MINUS, CH_BANG} then tl u
      else if js_keyword W [CH_i, CH_n] u then drop 2 u
      else if js_keyword W ([CH_i, CH_n] @ js_stanceof) u then drop (length ([CH_i, CH_n] @ js_stanceof)) u
      else u)"

section \<open>The functions compute their reference definitions\<close>

context text_runtime
begin

lemma template_chars_view:
  "text_view L = (xs, m, y) \<Longrightarrow> template_end xs = (found, rest) \<Longrightarrow>
   \<exists>L'. template_chars_loop R has L = Some (found \<and> (has \<or> rest \<noteq> xs), L') \<and>
     text_view L' = (if prefix [CH_DOLLAR] rest then tl rest else rest, rest, y)"
proof (induction xs arbitrary: L has m)
  case Nil
  then show ?case
    using mark_end_view [OF Nil.prems(1)]
    by (subst template_chars_loop.simps) (simp add: lookahead_view Let_def)
next
  case (Cons c cs)
  note mark = mark_end_view [OF Cons.prems(1)]
  note adv = advance_view [OF mark, of False, simplified]
  have rest: "rest \<noteq> c # cs" if "template_end cs = (found, rest)" for found rest
  proof -
    have "length (snd (template_end cs)) \<le> length cs"
      by (induction cs) auto
    then show ?thesis
      using that by auto
  qed
  have on: "\<exists>L'. template_chars_loop R True (lexer_advance R False (lexer_mark_end R L)) = Some (found \<and> rest \<noteq> c # cs, L') \<and>
      text_view L' = (if prefix [CH_DOLLAR] rest then tl rest else rest, rest, y)"
    if "template_end cs = (found, rest)"
    using Cons.IH [OF adv that, of True] rest [OF that] by auto
  note unfold = template_chars_loop.simps [of R has L]
  consider (stop) "c = CH_BACKTICK \<or> c = CH_BACKSLASH" | (nul) "c = 0" | (dollar) "c = CH_DOLLAR" "peek cs = CH_LBRACE"
    | (other) "c \<noteq> CH_BACKTICK" "c \<noteq> CH_BACKSLASH" "c \<noteq> 0" "\<not> (c = CH_DOLLAR \<and> peek cs = CH_LBRACE)" by blast
  then show ?case
  proof cases
    case other
    then have "template_chars_loop R has L = template_chars_loop R True (lexer_advance R False (lexer_mark_end R L))"
      by (simp add: unfold lookahead_view [OF mark] lookahead_view [OF adv] Let_def)
    moreover have tail: "template_end cs = (found, rest)"
      using other Cons.prems(2) by auto
    ultimately show ?thesis
      using on [OF tail] rest [OF tail] by simp
  qed (use Cons.prems(2) mark adv in \<open>auto simp: unfold lookahead_view [OF mark] lookahead_view [OF adv] Let_def\<close>)
qed

lemma block_comment_view:
  "text_view L = (xs, m, y) \<Longrightarrow> js_block saw xs = (closed, saw', rest) \<Longrightarrow>
   \<exists>L'. block_comment_loop R saw L = Some (closed, saw', L') \<and> text_view L' = (rest, m, y)"
proof (induction xs arbitrary: saw L)
  case Nil
  then show ?case
    by (subst block_comment_loop.simps) (simp add: lookahead_view)
next
  case (Cons c cs)
  note adv = advance_view [OF Cons.prems(1), of True, simplified]
  note adv2 = advance_view [OF adv, of True]
  note unfold = block_comment_loop.simps [of R saw L]
  show ?case
    using Cons.prems(2) Cons.prems(1) adv2 Cons.IH [OF adv, of saw] Cons.IH [OF adv, of True]
    by (auto simp: unfold lookahead_view [OF Cons.prems(1)] lookahead_view [OF adv] Let_def split: if_splits)
qed

text \<open>White space and comments, to any result.\<close>

lemma whitespace_view:
  assumes "wctype_ok W"
  shows "text_view L = (xs, m, y) \<Longrightarrow> js_blank W consume saw scanned xs = (result, scanned', rest) \<Longrightarrow>
    \<exists>L'. whitespace_loop W R consume saw scanned L = Some (result, scanned', L') \<and> text_view L' = (rest, m, y)"
proof (induction "length xs" arbitrary: xs saw scanned L rule: less_induct)
  case less
  let ?ys = "dropWhile (iswspace W) xs"
  obtain L1 where L1: "scan_while R (iswspace W) True L = Some L1" "text_view L1 = (?ys, m, y)"
    using scan_while_view [OF less.prems(1), of "iswspace W" True] assms by (auto simp: wctype_ok_def)
  note adv = advance_view [OF L1(2), of True]
  note adv2 = advance_view [OF adv, of True]
  note unfold = whitespace_loop.simps [of W R consume saw scanned L]
    and blank = js_blank.simps [of W consume saw scanned xs]
    and la = lookahead_view [OF L1(2)] lookahead_view [OF adv]
  consider (reject) "peek ?ys = CH_SLASH" "peek (tl ?ys) \<noteq> CH_SLASH" "peek (tl ?ys) \<noteq> CH_STAR"
    | (accept) "peek ?ys \<noteq> CH_SLASH" | (line) "peek ?ys = CH_SLASH" "peek (tl ?ys) = CH_SLASH"
    | (block) "peek ?ys = CH_SLASH" "peek (tl ?ys) = CH_STAR" by blast
  then show ?case
  proof cases
    case line
    obtain L2 where L2: "scan_while R js_in_line True (mozjs_skip R (mozjs_skip R L1)) = Some L2"
        "text_view L2 = (dropWhile js_in_line (tl (tl ?ys)), m, y)"
      using scan_while_view [OF adv2, of js_in_line True] by auto
    have "length (dropWhile js_in_line (tl (tl ?ys))) < length xs"
      by (rule blank_shorter [OF line(1) length_dropWhile_le])
    from less.hyps [OF this L2(2), of saw True] show ?thesis
      using less.prems(2) line by (simp add: unfold blank L1(1) L2(1) la Let_def)
  next
    case block
    obtain closed saw' rest' where jb: "js_block saw (tl (tl ?ys)) = (closed, saw', rest')"
      by (metis prod_cases3)
    obtain L2 where L2: "block_comment_loop R saw (mozjs_skip R (mozjs_skip R L1)) = Some (closed, saw', L2)"
        "text_view L2 = (rest', m, y)"
      using block_comment_view [OF adv2 jb] by blast
    have "length rest' < length xs"
      by (rule blank_shorter [OF block(1) js_block_length_eq [OF jb]])
    note IH = less.hyps [OF this L2(2)]
    show ?thesis
      using less.prems(2) block IH [of saw' True] IH [of saw' scanned] L2(2)
      by (auto simp: unfold blank L1(1) L2(1) la jb lookahead_view [OF L2(2)] Let_def split: if_splits)
  next
    case reject
    then have "whitespace_loop W R consume saw scanned L = Some (WS_REJECT, scanned, mozjs_skip R L1)"
      by (simp add: unfold L1(1) la)
    then show ?thesis
      using less.prems(2) reject adv by (simp add: blank)
  next
    case accept
    then have "whitespace_loop W R consume saw scanned L = Some (WS_ACCEPT, scanned, L1)"
      by (simp add: unfold L1(1) la)
    then show ?thesis
      using less.prems(2) accept L1(2) by (simp add: blank)
  qed
qed

lemma instanceof_view:
  "text_view L = (xs, m, y) \<Longrightarrow> 0 \<notin> set cs \<Longrightarrow>
   \<exists>L'. instanceof_loop R cs L = (if prefix cs xs then None else Some True, L') \<and>
     (\<exists>ys. text_view L' = (ys, m, y) \<and> (prefix cs xs \<longrightarrow> ys = drop (length cs) xs))"
proof (induction cs arbitrary: L xs)
  case Nil
  then show ?case by simp
next
  case (Cons c cs)
  show ?case
  proof (cases "peek xs = c")
    case True
    then obtain xs' where xs: "xs = c # xs'"
      using Cons.prems(2) by (cases xs) auto
    with Cons.IH [OF advance_view [OF Cons.prems(1), of True]] Cons.prems(2) show ?thesis
      by (simp add: lookahead_view [OF Cons.prems(1)])
  next
    case False
    then have "\<not> prefix (c # cs) xs"
      by (cases xs) auto
    with False Cons.prems show ?thesis
      by (simp add: lookahead_view)
  qed
qed

lemma semicolon_switch_view:
  assumes "text_view L = (xs, m, y)"
  shows "\<exists>L' ys. semicolon_switch W R L = (asi_before W xs, L') \<and> text_view L' = (ys, m, y) \<and>
    (\<not> asi_before W xs \<longrightarrow> ys = asi_stop W xs)"
proof (cases xs)
  case Nil
  then show ?thesis
    using assms by (simp add: semicolon_switch_def lookahead_view Let_def js_continuing_def)
next
  case (Cons c cs)
  note view = assms [unfolded Cons]
  note adv = advance_view [OF view, of True, simplified]
  note adv2 = advance_view [OF adv, of True]
  note la = lookahead_view [OF view] lookahead_view [OF adv] lookahead_view [OF adv2]
  have kw_in: "js_keyword W [CH_i, CH_n] (CH_i # cs) \<longleftrightarrow> peek cs = CH_n \<and> \<not> iswalpha W (peek (tl cs))"
    by (cases cs) (auto simp: js_keyword_def)
  have kw_i: "\<not> js_keyword W kw (c # cs)" if "c \<noteq> CH_i" "prefix [CH_i] kw" for kw
    using that by (auto simp: js_keyword_def prefix_def)
  consider (keyword) "c = CH_i" "peek cs = CH_n" "iswalpha W (peek (tl cs))"
    | (operator_in) "c = CH_i" "peek cs = CH_n" "\<not> iswalpha W (peek (tl cs))"
    | (word) "c = CH_i" "peek cs \<noteq> CH_n" | (other) "c \<noteq> CH_i" by blast
  then show ?thesis
  proof cases
    case operator_in
    then show ?thesis
      using adv2 kw_in unfolding Cons
      by (auto simp: semicolon_switch_def la Let_def js_continuing_def asi_stop_def drop_Suc numeral_2_eq_2)
  next
    case word
    then have "\<not> js_keyword W ([CH_i, CH_n] @ js_stanceof) (CH_i # cs)"
      by (cases cs) (simp_all add: js_keyword_def)
    then show ?thesis
      using word adv kw_in unfolding Cons
      by (auto simp: semicolon_switch_def la Let_def js_continuing_def)
  next
    case other
    have stop: "asi_stop W xs = (if c \<in> {CH_DOT, CH_PLUS, CH_MINUS, CH_BANG} then cs else c # cs)"
      using kw_i [OF other] by (simp add: Cons asi_stop_def)
    have switch: "semicolon_switch W R L =
        (asi_before W xs, if c \<in> {CH_DOT, CH_PLUS, CH_MINUS, CH_BANG} then mozjs_skip R L else L)"
      using other kw_i [OF other] by (simp add: Cons semicolon_switch_def la Let_def js_continuing_def)
    show ?thesis
      using view adv unfolding switch stop by (cases "c \<in> {CH_DOT, CH_PLUS, CH_MINUS, CH_BANG}") auto
  next
    case keyword
    then obtain zs where cs: "cs = CH_n # zs"
      by (cases cs) auto
    obtain L3 ys where L3: "instanceof_loop R js_stanceof (mozjs_skip R (mozjs_skip R L)) =
        (if prefix js_stanceof zs then None else Some True, L3)"
        "text_view L3 = (ys, m, y)" "prefix js_stanceof zs \<longrightarrow> ys = drop (length js_stanceof) zs"
      using instanceof_view [OF adv2, of js_stanceof] by (auto simp: js_stanceof_def cs)
    have before: "asi_before W xs \<longleftrightarrow> \<not> (prefix js_stanceof zs \<and> \<not> iswalpha W (peek (drop (length js_stanceof) zs)))"
      using keyword by (auto simp: Cons cs js_keyword_def js_continuing_def)
    moreover have "semicolon_switch W R L =
        (prefix js_stanceof zs \<longrightarrow> iswalpha W (peek (drop (length js_stanceof) zs)), L3)"
      using keyword L3 by (auto simp: semicolon_switch_def la Let_def js_continuing_def lookahead_view [OF L3(2)] cs)
    moreover have "asi_stop W xs = drop (length js_stanceof) zs" if "\<not> asi_before W xs"
      using that keyword unfolding before
      by (simp add: Cons cs asi_stop_def js_keyword_def js_stanceof_def)
    ultimately show ?thesis
      using L3(2,3) by auto
  qed
qed

text \<open>The loop over a line always ends, and keeps the mark.\<close>

lemma semicolon_line_total:
  assumes "wctype_ok W"
  shows "text_view L = (xs, m, y) \<Longrightarrow>
    \<exists>answer scanned' L' ys. semicolon_line_loop W R cond scanned L = Some (answer, scanned', L') \<and>
      text_view L' = (ys, m, y)"
proof (induction "length xs" arbitrary: xs scanned L rule: less_induct)
  case less
  note unfold = semicolon_line_loop.simps [of W R cond scanned L]
  define mid where "mid = (if lookahead R L = CH_SLASH
         then map_option (\<lambda>(result, scanned, L).
                (if result = WS_REJECT then Some False
                 else if result = WS_ACCEPT \<and> cond \<and>
                         lookahead R L \<noteq> CH_COMMA \<and> lookahead R L \<noteq> CH_EQUALS then Some True
                 else None, scanned, L))
                (scan_whitespace_and_comments W R L scanned False)
         else Some (None, scanned, L))"
  have "\<exists>answer scanned' L1 zs. mid = Some (answer, scanned', L1) \<and> text_view L1 = (zs, m, y) \<and> length zs \<le> length xs"
  proof (cases "lookahead R L = CH_SLASH")
    case True
    obtain result scanned' rest where jb: "js_blank W False False scanned xs = (result, scanned', rest)"
      by (metis prod_cases3)
    obtain L' where L': "whitespace_loop W R False False scanned L = Some (result, scanned', L')"
        "text_view L' = (rest, m, y)"
      using whitespace_view [OF assms less.prems jb] by blast
    have "\<exists>answer. mid = Some (answer, scanned', L')"
      using True L'(1) by (simp add: mid_def scan_whitespace_and_comments_def)
    then show ?thesis
      using L'(2) js_blank_length [OF jb] by blast
  next
    case False
    then show ?thesis
      using less.prems by (simp add: mid_def)
  qed
  then obtain answer scanned' L1 zs where mid: "mid = Some (answer, scanned', L1)" "text_view L1 = (zs, m, y)"
      "length zs \<le> length xs"
    by blast
  show ?case
  proof (cases "lookahead R L \<noteq> 0 \<and> answer = None \<and> lookahead R L1 \<noteq> CH_RBRACE \<and>
      \<not> lexer_is_at_included_range_start R L1 \<and> \<not> js_eol (lookahead R L1) \<and> iswspace W (lookahead R L1)")
    case False
    then show ?thesis
      using less.prems mid by (auto simp: unfold mid_def [symmetric])
  next
    case True
    then have "peek zs \<noteq> 0"
      using assms by (auto simp: wctype_ok_def lookahead_view [OF mid(2)])
    then have "length (tl zs) < length xs"
      using mid(3) peek_tl_shorter [of zs] by simp
    from less.hyps [OF this advance_view [OF mid(2), of True], of scanned'] True show ?thesis
      by (simp add: unfold mid_def [symmetric] mid(1))
  qed
qed

lemma automatic_semicolon_total:
  assumes "wctype_ok W" and "text_view L = (xs, m, y)"
  shows "\<exists>ok scanned' L' ys. scan_automatic_semicolon W R L cond scanned = Some (ok, scanned', L') \<and>
    text_view L' = (ys, xs, 0)"
proof -
  let ?L = "lexer_mark_end R (L\<lparr>result_symbol := 0\<rparr>)"
  have start: "text_view ?L = (xs, xs, 0)"
    using mark_end_view [OF set_symbol_view [OF assms(2)]] .
  obtain answer scanned1 L1 ys where L1: "semicolon_line_loop W R cond scanned ?L = Some (answer, scanned1, L1)"
      "text_view L1 = (ys, xs, 0)"
    using semicolon_line_total [OF assms(1) start] by blast
  show ?thesis
  proof (cases answer)
    case (Some ok)
    then show ?thesis
      using L1 by (simp add: scan_automatic_semicolon_def)
  next
    case None
    obtain result scanned2 rest where jb: "js_blank W True False scanned1 (tl ys) = (result, scanned2, rest)"
      by (metis prod_cases3)
    obtain L2 where L2: "whitespace_loop W R True False scanned1 (mozjs_skip R L1) = Some (result, scanned2, L2)"
        "text_view L2 = (rest, xs, 0)"
      using whitespace_view [OF assms(1) advance_view [OF L1(2), of True] jb] by blast
    obtain L3 zs where "semicolon_switch W R L2 = (asi_before W rest, L3)" "text_view L3 = (zs, xs, 0)"
      using semicolon_switch_view [OF L2(2)] by blast
    then show ?thesis
      using None L1(1) L2 by (auto simp: scan_automatic_semicolon_def scan_whitespace_and_comments_def)
  qed
qed

lemma html_marker_view:
  "text_view L = (xs, m, y) \<Longrightarrow> 0 \<notin> set cs \<Longrightarrow>
   \<exists>L' ys. html_marker_loop R cs L = (prefix cs xs, L') \<and> text_view L' = (ys, m, y) \<and>
     (prefix cs xs \<longrightarrow> ys = drop (length cs) xs)"
proof (induction cs arbitrary: L xs)
  case Nil
  then show ?case by simp
next
  case (Cons c cs)
  show ?case
  proof (cases "peek xs = c")
    case True
    then obtain xs' where xs: "xs = c # xs'"
      using Cons.prems(2) by (cases xs) auto
    with Cons.IH [OF advance_view [OF Cons.prems(1), of False]] Cons.prems(2) show ?thesis
      by (simp add: lookahead_view [OF Cons.prems(1)])
  next
    case False
    then have "\<not> prefix (c # cs) xs"
      by (cases xs) auto
    with False Cons.prems show ?thesis
      by (simp add: lookahead_view)
  qed
qed

end

text \<open>White space and comments between tokens, as the language defines them.\<close>

inductive js_trivia :: "wctype \<Rightarrow> codepoint list \<Rightarrow> bool" for W where
  trivia_nil: "js_trivia W []"
| trivia_space: "iswspace W c \<Longrightarrow> js_trivia W t \<Longrightarrow> js_trivia W (c # t)"
| trivia_line: "\<forall>c \<in> set body. js_in_line c \<Longrightarrow> js_eol e \<Longrightarrow> js_trivia W (e # t) \<Longrightarrow>
    js_trivia W (CH_SLASH # CH_SLASH # body @ e # t)"
| trivia_block: "0 \<notin> set body \<Longrightarrow> \<not> sublist [CH_STAR, CH_SLASH] (body @ [CH_STAR]) \<Longrightarrow> js_trivia W t \<Longrightarrow>
    js_trivia W (CH_SLASH # CH_STAR # body @ CH_STAR # CH_SLASH # t)"

text \<open>A text that starts with neither: the next token, or the end.\<close>

definition js_token_start :: "wctype \<Rightarrow> codepoint list \<Rightarrow> bool" where
  "js_token_start W u \<longleftrightarrow> \<not> iswspace W (peek u) \<and> peek u \<noteq> CH_SLASH"

lemma js_block_closed:
  "0 \<notin> set body \<Longrightarrow> \<not> sublist [CH_STAR, CH_SLASH] (body @ [CH_STAR]) \<Longrightarrow>
   js_block saw (body @ CH_STAR # CH_SLASH # t) = (True, saw \<or> (\<exists>c \<in> set body. js_eol c), t)"
proof (induction body arbitrary: saw)
  case Nil
  then show ?case by simp
next
  case (Cons c body)
  then have "\<not> sublist [CH_STAR, CH_SLASH] (body @ [CH_STAR])" "c = CH_STAR \<longrightarrow> peek (body @ [CH_STAR]) \<noteq> CH_SLASH"
    by (auto simp: sublist_Cons_right) (cases body; simp)
  moreover have "peek (body @ CH_STAR # CH_SLASH # t) = peek (body @ [CH_STAR])"
    by (cases body) simp_all
  ultimately show ?case
    using Cons by (auto simp: js_eol_def)
qed

lemma js_blank_drop_space:
  "iswspace W c \<Longrightarrow> js_blank W consume saw scanned (c # xs) = js_blank W consume saw scanned xs"
  by (subst (1 2) js_blank.simps) simp

lemma js_blank_trivia:
  assumes "js_trivia W t" and "wctype_ok W" and "js_token_start W u"
  shows "js_blank W True saw scanned (t @ u) = (WS_ACCEPT, scanned \<or> (\<exists>c \<in> set t. \<not> iswspace W c), u)"
  using assms(1)
proof (induction arbitrary: saw scanned)
  case trivia_nil
  have "dropWhile (iswspace W) u = u"
    using assms(3) by (cases u) (simp_all add: js_token_start_def)
  then show ?case
    using assms(3) by (simp add: js_blank.simps [of W True saw scanned] js_token_start_def)
next
  case (trivia_space c t)
  then show ?case
    by (simp add: js_blank_drop_space)
next
  case (trivia_line body e t)
  have "\<not> iswspace W CH_SLASH"
    using assms(2) by (simp add: wctype_ok_def)
  moreover have "dropWhile js_in_line (body @ e # t @ u) = e # t @ u"
    using trivia_line.hyps(1,2) by (subst dropWhile_append2) auto
  ultimately show ?case
    using trivia_line.IH [of saw True] by (subst js_blank.simps) simp
next
  case (trivia_block body t)
  have "\<not> iswspace W CH_SLASH"
    using assms(2) by (simp add: wctype_ok_def)
  then show ?case
    using trivia_block.IH [of _ True] js_block_closed [OF trivia_block.hyps(1,2), of saw "t @ u"]
    by (subst js_blank.simps) simp
qed

context text_runtime
begin

lemma semicolon_line_to_eol:
  assumes "wctype_ok W" and "rt_is_at_included_range_start R = (\<lambda>s. False)" and "js_eol e"
  shows "text_view L = (sp @ e # xs, m, y) \<Longrightarrow> \<forall>c \<in> set sp. iswspace W c \<and> \<not> js_eol c \<Longrightarrow>
    \<exists>L'. semicolon_line_loop W R cond scanned L = Some (None, scanned, L') \<and> text_view L' = (e # xs, m, y)"
proof (induction sp arbitrary: L)
  case Nil
  have "e \<notin> {0, CH_SLASH, CH_RBRACE}"
    using assms(3) by (auto simp: js_eol_def)
  then show ?case
    using Nil.prems(1) assms(2,3)
    by (subst semicolon_line_loop.simps) (simp add: lookahead_view lexer_is_at_included_range_start_def)
next
  case (Cons c sp)
  have "c \<notin> {0, CH_SLASH, CH_RBRACE}"
    using assms(1) Cons.prems(2) by (auto simp: wctype_ok_def)
  then have "semicolon_line_loop W R cond scanned L = semicolon_line_loop W R cond scanned (mozjs_skip R L)"
    using Cons.prems assms(2)
    by (subst semicolon_line_loop.simps) (simp add: lookahead_view lexer_is_at_included_range_start_def)
  then show ?case
    using Cons.IH [OF advance_view [OF Cons.prems(1), of True, simplified]] Cons.prems(2) by simp
qed

lemma automatic_semicolon_at_eol:
  assumes "wctype_ok W" and "rt_is_at_included_range_start R = (\<lambda>s. False)" and "js_eol e"
    and "text_view L = (sp @ e # t @ u, m, y)" and "\<forall>c \<in> set sp. iswspace W c \<and> \<not> js_eol c"
    and "js_trivia W t" and "js_token_start W u"
  shows "\<exists>L' ys. scan_automatic_semicolon W R L cond scanned =
      Some (asi_before W u, scanned \<or> (\<exists>c \<in> set t. \<not> iswspace W c), L') \<and>
    text_view L' = (ys, sp @ e # t @ u, 0) \<and> (\<not> asi_before W u \<longrightarrow> ys = asi_stop W u)"
proof -
  let ?xs = "sp @ e # t @ u" and ?L = "lexer_mark_end R (L\<lparr>result_symbol := 0\<rparr>)"
    and ?scanned = "scanned \<or> (\<exists>c \<in> set t. \<not> iswspace W c)"
  have "text_view ?L = (?xs, ?xs, 0)"
    using mark_end_view [OF set_symbol_view [OF assms(4)]] .
  from semicolon_line_to_eol [OF assms(1,2,3) this assms(5)] obtain L1 where
    L1: "semicolon_line_loop W R cond scanned ?L = Some (None, scanned, L1)" "text_view L1 = (e # t @ u, ?xs, 0)"
    by blast
  obtain L2 where L2: "whitespace_loop W R True False scanned (mozjs_skip R L1) = Some (WS_ACCEPT, ?scanned, L2)"
      "text_view L2 = (u, ?xs, 0)"
    using whitespace_view [OF assms(1) advance_view [OF L1(2), of True, simplified] js_blank_trivia [OF assms(6,1,7)]]
    by blast
  obtain L3 ys where "semicolon_switch W R L2 = (asi_before W u, L3)" "text_view L3 = (ys, ?xs, 0)"
      "\<not> asi_before W u \<longrightarrow> ys = asi_stop W u"
    using semicolon_switch_view [OF L2(2)] by blast
  then show ?thesis
    using L1(1) L2(1) by (simp add: scan_automatic_semicolon_def scan_whitespace_and_comments_def)
qed

end

text \<open>A question mark, after white space, that is not \<^verbatim>\<open>??\<close> or \<^verbatim>\<open>?.\<close> (unless a digit follows the dot).\<close>

definition ternary_at :: "wctype \<Rightarrow> codepoint list \<Rightarrow> bool" where
  "ternary_at W ys \<longleftrightarrow> peek ys = CH_QMARK \<and> peek (tl ys) \<noteq> CH_QMARK \<and>
     (peek (tl ys) = CH_DOT \<longrightarrow> iswdigit W (peek (tl (tl ys))))"

text \<open>
  At a line end the question mark gets its turn: no semicolon was inserted, no comment was read and the
  scanner stands at a question mark.
\<close>

definition asi_ternary :: "wctype \<Rightarrow> (mozjs_TokenType \<Rightarrow> bool) \<Rightarrow> codepoint list \<Rightarrow> codepoint list \<Rightarrow> bool" where
  "asi_ternary W valid t u \<longleftrightarrow> valid TERNARY_QMARK \<and> list_all (iswspace W) t \<and> \<not> asi_before W u \<and>
     peek (asi_stop W u) = CH_QMARK"

definition js_blank_or_eol :: "wctype \<Rightarrow> codepoint \<Rightarrow> bool" where
  "js_blank_or_eol W c \<longleftrightarrow> iswspace W c \<or> c = 0x2028 \<or> c = 0x2029"

text \<open>The text after a line break and the white space that follows it.\<close>

definition after_newline :: "wctype \<Rightarrow> codepoint list \<Rightarrow> bool" where
  "after_newline W a \<longleftrightarrow> (\<exists>b ws. a = b @ CH_LF # ws \<and> (\<forall>c \<in> set ws. iswspace W c))"

text \<open>
  JSX text is worth a token when it holds a character that is neither a line break nor white space
  between a line break and the next text.
\<close>

definition jsx_counts :: "wctype \<Rightarrow> codepoint list \<Rightarrow> codepoint list \<Rightarrow> bool" where
  "jsx_counts W a xs \<longleftrightarrow>
     (\<exists>b c zs. xs = b @ c # zs \<and> c \<noteq> CH_LF \<and> \<not> (iswspace W c \<and> after_newline W (a @ b)))"

lemma after_newline_snoc:
  assumes "iswspace W CH_LF"
  shows "after_newline W (a @ [c]) \<longleftrightarrow> c = CH_LF \<or> after_newline W a \<and> iswspace W c"
proof
  assume "after_newline W (a @ [c])"
  then obtain b ws where b: "a @ [c] = b @ CH_LF # ws" "\<forall>c \<in> set ws. iswspace W c"
    by (auto simp: after_newline_def)
  show "c = CH_LF \<or> after_newline W a \<and> iswspace W c"
    using b by (cases ws rule: rev_exhaust) (auto simp: after_newline_def)
next
  assume "c = CH_LF \<or> after_newline W a \<and> iswspace W c"
  then show "after_newline W (a @ [c])"
  proof
    assume "c = CH_LF"
    then show ?thesis
      by (auto simp: after_newline_def intro: exI [of _ a] exI [of _ "[]"])
  next
    assume "after_newline W a \<and> iswspace W c"
    then obtain b ws where "a = b @ CH_LF # ws" "\<forall>d \<in> set (ws @ [c]). iswspace W d"
      by (auto simp: after_newline_def)
    then show ?thesis
      unfolding after_newline_def by (intro exI [of _ b] exI [of _ "ws @ [c]"]) simp
  qed
qed

lemma jsx_counts_Nil: "\<not> jsx_counts W a []"
  by (simp add: jsx_counts_def)

lemma jsx_counts_Cons:
  "jsx_counts W a (c # xs) \<longleftrightarrow>
     c \<noteq> CH_LF \<and> \<not> (iswspace W c \<and> after_newline W a) \<or> jsx_counts W (a @ [c]) xs"
  (is "?l \<longleftrightarrow> ?now \<or> ?later")
proof
  assume ?l
  then obtain b d zs where b: "c # xs = b @ d # zs" "d \<noteq> CH_LF" "\<not> (iswspace W d \<and> after_newline W (a @ b))"
    by (auto simp: jsx_counts_def)
  show "?now \<or> ?later"
  proof (cases b)
    case Nil
    with b show ?thesis by simp
  next
    case (Cons x b')
    with b have "xs = b' @ d # zs" "\<not> (iswspace W d \<and> after_newline W ((a @ [c]) @ b'))" by simp_all
    with b(2) have ?later
      unfolding jsx_counts_def by blast
    then show ?thesis ..
  qed
next
  assume "?now \<or> ?later"
  then show ?l
  proof
    assume ?now
    then show ?l
      unfolding jsx_counts_def by (intro exI [of _ "[]"] exI [of _ c] exI [of _ xs]) simp
  next
    assume ?later
    then obtain b d zs where "xs = b @ d # zs" "d \<noteq> CH_LF" "\<not> (iswspace W d \<and> after_newline W ((a @ [c]) @ b))"
      by (auto simp: jsx_counts_def)
    then show ?l
      unfolding jsx_counts_def by (intro exI [of _ "c # b"] exI [of _ d] exI [of _ zs]) simp
  qed
qed

context text_runtime
begin

lemma ternary_view:
  assumes "wctype_ok W" and "text_view L = (xs, m, y)" and "ys = dropWhile (iswspace W) xs"
  shows "\<exists>L' zs m' y'. scan_ternary_qmark W R L = Some (ternary_at W ys, L') \<and> text_view L' = (zs, m', y') \<and>
    (ternary_at W ys \<longrightarrow> m' = tl ys \<and> y' = 2)"
proof -
  obtain L1 where L1: "scan_while R (iswspace W) True L = Some L1" "text_view L1 = (ys, m, y)"
    using scan_while_view [OF assms(2), of "iswspace W" True] assms(1,3) by (auto simp: wctype_ok_def)
  note adv = advance_view [OF L1(2), of False]
  note mark = set_symbol_view [OF mark_end_view [OF adv], of 2]
  note adv2 = advance_view [OF mark, of False]
  show ?thesis
    using L1(2) adv mark adv2
    by (auto simp: scan_ternary_qmark_def L1(1) Let_def ternary_at_def lookahead_view [OF L1(2)]
        lookahead_view [OF adv] lookahead_view [OF mark] lookahead_view [OF adv2])
qed

lemma semicolon_scan_view:
  assumes "wctype_ok W" and "rt_is_at_included_range_start R = (\<lambda>s. False)" and "js_eol e"
    and "text_view L = (sp @ e # t @ u, m, y)" and "\<forall>c \<in> set sp. iswspace W c \<and> \<not> js_eol c"
    and "js_trivia W t" and "js_token_start W u"
    and "valid AUTOMATIC_SEMICOLON" and "\<not> valid TEMPLATE_CHARS" and "\<not> valid JSX_TEXT"
  shows "\<exists>L' ys m' y'. tree_sitter_mozjs_external_scanner_scan W R L valid =
      Some (if asi_ternary W valid t u then ternary_at W (asi_stop W u) else asi_before W u, L') \<and>
    text_view L' = (ys, m', y') \<and>
    (\<not> asi_ternary W valid t u \<longrightarrow> m' = sp @ e # t @ u \<and> y' = 0) \<and>
    (asi_ternary W valid t u \<and> ternary_at W (asi_stop W u) \<longrightarrow> m' = tl (asi_stop W u) \<and> y' = 2)"
proof -
  obtain L1 ys where L1: "scan_automatic_semicolon W R L (\<not> valid LOGICAL_OR) False =
      Some (asi_before W u, \<exists>c \<in> set t. \<not> iswspace W c, L1)"
      "text_view L1 = (ys, sp @ e # t @ u, 0)" "\<not> asi_before W u \<longrightarrow> ys = asi_stop W u"
    using automatic_semicolon_at_eol [OF assms(1-7), of "\<not> valid LOGICAL_OR" False] by auto
  have scan: "tree_sitter_mozjs_external_scanner_scan W R L valid =
      (if asi_ternary W valid t u then scan_ternary_qmark W R L1 else Some (asi_before W u, L1))"
    using assms(8-10) L1
    by (auto simp: tree_sitter_mozjs_external_scanner_scan_def mozjs_scan_rest_def asi_ternary_def
        lookahead_view [OF L1(2)] list_all_iff)
  show ?thesis
  proof (cases "asi_ternary W valid t u")
    case False
    then show ?thesis
      using scan L1(2) by auto
  next
    case True
    then have ys: "ys = asi_stop W u" "peek ys = CH_QMARK"
      using L1(3) by (auto simp: asi_ternary_def)
    moreover have "\<not> iswspace W CH_QMARK"
      using assms(1) by (simp add: wctype_ok_def)
    ultimately have "asi_stop W u = dropWhile (iswspace W) ys"
      unfolding ys(1) [symmetric] by (cases ys) auto
    from ternary_view [OF assms(1) L1(2) this] True show ?thesis
      unfolding scan by auto
  qed
qed

lemma html_comment_view:
  assumes "wctype_ok W" and "text_view L = (xs, m, y)" and "ys = dropWhile (js_blank_or_eol W) xs"
  shows "\<exists>L' zs m' y'. scan_html_comment W R L = Some (prefix comment_start ys \<or> prefix comment_end ys, L') \<and>
    text_view L' = (zs, m', y') \<and>
    (prefix comment_start ys \<or> prefix comment_end ys \<longrightarrow> zs = dropWhile js_in_line ys \<and> m' = zs \<and> y' = 3)"
proof -
  have blank: "js_blank_or_eol W = (\<lambda>c. iswspace W c \<or> c = 0x2028 \<or> c = 0x2029)"
    by (simp add: fun_eq_iff js_blank_or_eol_def)
  obtain L1 where L1: "scan_while R (js_blank_or_eol W) True L = Some L1" "text_view L1 = (ys, m, y)"
    using scan_while_view [OF assms(2), of "js_blank_or_eol W" True] assms(1,3)
    by (auto simp: wctype_ok_def js_blank_or_eol_def)
  note L1' = L1 [unfolded blank]
  define marker where "marker = (if peek ys = CH_LT then html_marker_loop R comment_start L1
      else if peek ys = CH_MINUS then html_marker_loop R comment_end L1 else (False, L1))"
  have pre: "prefix comment_start ys \<longrightarrow> peek ys = CH_LT" "prefix comment_end ys \<longrightarrow> peek ys = CH_MINUS"
    by (cases ys; simp add: comment_start_def comment_end_def)+
  have markers: "0 \<notin> set comment_start" "0 \<notin> set comment_end" "length comment_start = 4" "length comment_end = 3"
    by (simp_all add: comment_start_def comment_end_def)
  obtain La za where La: "html_marker_loop R comment_start L1 = (prefix comment_start ys, La)"
      "text_view La = (za, m, y)" "prefix comment_start ys \<longrightarrow> za = drop 4 ys"
    using html_marker_view [OF L1(2) markers(1)] unfolding markers by blast
  obtain Lb zb where Lb: "html_marker_loop R comment_end L1 = (prefix comment_end ys, Lb)"
      "text_view Lb = (zb, m, y)" "prefix comment_end ys \<longrightarrow> zb = drop 3 ys"
    using html_marker_view [OF L1(2) markers(2)] unfolding markers by blast
  have "\<exists>L2 zs. marker = (prefix comment_start ys \<or> prefix comment_end ys, L2) \<and> text_view L2 = (zs, m, y) \<and>
      (prefix comment_start ys \<longrightarrow> zs = drop 4 ys) \<and> (prefix comment_end ys \<longrightarrow> zs = drop 3 ys)"
  proof (cases "peek ys = CH_LT")
    case True
    then show ?thesis
      using La pre by (auto simp: marker_def)
  next
    case False
    then show ?thesis
      using Lb L1(2) pre by (auto simp: marker_def)
  qed
  then obtain L2 zs where L2: "marker = (prefix comment_start ys \<or> prefix comment_end ys, L2)" "text_view L2 = (zs, m, y)"
      "prefix comment_start ys \<longrightarrow> zs = drop 4 ys" "prefix comment_end ys \<longrightarrow> zs = drop 3 ys"
    by blast
  have rest: "dropWhile js_in_line zs = dropWhile js_in_line ys" if "prefix comment_start ys \<or> prefix comment_end ys"
    using that L2(3,4) by (auto simp: comment_start_def comment_end_def prefix_def js_eol_def)
  obtain L3 where L3: "scan_while R js_in_line False L2 = Some L3" "text_view L3 = (dropWhile js_in_line zs, m, y)"
    using scan_while_view [OF L2(2), of js_in_line False] by auto
  have run: "(if lookahead R L1 = CH_LT then html_marker_loop R comment_start L1
      else if lookahead R L1 = CH_MINUS then html_marker_loop R comment_end L1 else (False, L1)) =
      (prefix comment_start ys \<or> prefix comment_end ys, L2)"
    using L2(1) by (simp only: marker_def lookahead_view [OF L1(2)])
  have "scan_html_comment W R L = (if prefix comment_start ys \<or> prefix comment_end ys
      then Some (True, lexer_mark_end R (L3\<lparr>result_symbol := 3\<rparr>)) else Some (False, L2))"
    by (simp add: scan_html_comment_def L1'(1) run L3(1))
  then show ?thesis
    using mark_end_view [OF set_symbol_view [OF L3(2), of 3]] L2(2) rest by auto
qed

lemma jsx_text_view:
  assumes "wctype_ok W"
  shows "text_view L = (xs, m, y) \<Longrightarrow> nl = after_newline W a \<Longrightarrow>
    \<exists>L'. jsx_text_loop W R saw nl L = Some (saw \<or> jsx_counts W a (takeWhile (\<lambda>c. \<not> jsx_stop c) xs), L') \<and>
      text_view L' = (dropWhile (\<lambda>c. \<not> jsx_stop c) xs, m, 7)"
proof (induction xs arbitrary: L saw nl a)
  case Nil
  then show ?case
    using set_symbol_view [OF Nil.prems(1)]
    by (subst jsx_text_loop.simps) (simp add: lookahead_view jsx_stop_def jsx_counts_Nil)
next
  case (Cons c cs)
  note adv = advance_view [OF Cons.prems(1), of False, simplified]
  have lf: "iswspace W CH_LF"
    using assms by (simp add: wctype_ok_def)
  show ?case
  proof (cases "jsx_stop c")
    case True
    then show ?thesis
      using set_symbol_view [OF Cons.prems(1)]
      by (subst jsx_text_loop.simps) (simp add: lookahead_view [OF Cons.prems(1)] jsx_counts_Nil)
  next
    case False
    let ?nl = "c = CH_LF \<or> nl \<and> iswspace W c" and ?saw = "saw \<or> c \<noteq> CH_LF \<and> \<not> (nl \<and> iswspace W c)"
    have "jsx_text_loop W R saw nl L = jsx_text_loop W R ?saw ?nl (mozjs_advance R L)"
      using False by (subst jsx_text_loop.simps) (simp add: lookahead_view [OF Cons.prems(1)] Let_def)
    moreover have "?nl = after_newline W (a @ [c])"
      using Cons.prems(2) by (simp add: after_newline_snoc [where W = W, OF lf])
    moreover have "?saw \<or> jsx_counts W (a @ [c]) t \<longleftrightarrow> saw \<or> jsx_counts W a (c # t)" for t
      using Cons.prems(2) by (auto simp: jsx_counts_Cons)
    ultimately show ?thesis
      using Cons.IH [OF adv, of ?nl "a @ [c]" ?saw] False by simp
  qed
qed

lemma mozjs_rest_total:
  assumes "wctype_ok W" and "text_view L = (xs, m, y)"
  shows "\<exists>ok L'. mozjs_scan_rest W R L valid = Some (ok, L')"
proof -
  have ternary: "\<exists>ok L'. scan_ternary_qmark W R L = Some (ok, L')" if "text_view L = (xs, m, y)" for L xs m y
    using ternary_view [OF assms(1) that refl] by blast
  obtain ok scanned L1 ys where L1: "scan_automatic_semicolon W R L (\<not> valid LOGICAL_OR) False = Some (ok, scanned, L1)"
      "text_view L1 = (ys, xs, 0)"
    using automatic_semicolon_total [OF assms] by blast
  then show ?thesis
    using ternary [OF L1(2)] ternary [OF assms(2)] html_comment_view [OF assms refl]
    by (auto simp: mozjs_scan_rest_def)
qed

lemma mozjs_scan_total_view:
  assumes "wctype_ok W" and "text_view L = (xs, m, y)"
  shows "\<exists>ok L'. tree_sitter_mozjs_external_scanner_scan W R L valid = Some (ok, L')"
proof -
  have "\<not> after_newline W []"
    by (simp add: after_newline_def)
  then obtain ok L1 ys where L1: "scan_jsx_text W R L = Some (ok, L1)" "text_view L1 = (ys, m, 7)"
    using jsx_text_view [OF assms, of False "[]" False] by (auto simp: scan_jsx_text_def)
  have "\<exists>ok L'. scan_template_chars R L = Some (ok, L')"
    using template_chars_view [OF set_symbol_view [OF assms(2)] prod.collapse [symmetric]]
    by (fastforce simp: scan_template_chars_def)
  then show ?thesis
    using L1(1) mozjs_rest_total [OF assms(1) L1(2)] mozjs_rest_total [OF assms]
    by (auto simp: tree_sitter_mozjs_external_scanner_scan_def)
qed

end

section \<open>Properties\<close>

text \<open>
  Property C34. The JavaScript scanner always returns: on every text and for every set of valid
  tokens, although none of its loops has a bound, since each pass consumes a character and NUL, which
  the lookahead is at the end of the input, stops them all.
\<close>

theorem mozjs_scan_total:
  assumes "text_runtime R ahead marked" and "wctype_ok W"
  shows "\<exists>ok L'. tree_sitter_mozjs_external_scanner_scan W R L valid = Some (ok, L')"
  using text_runtime.mozjs_scan_total_view [OF assms(1,2)] by (simp add: view_of_def)

theorem mozjs_scan_total_witness:
  "\<exists>ok L'. tree_sitter_mozjs_external_scanner_scan C_wctype cursor_runtime
     (text_lexer [CH_SLASH, CH_STAR]) (\<lambda>t. t = AUTOMATIC_SEMICOLON) = Some (ok, L')"
  by (rule mozjs_scan_total [OF cursor_text_runtime C_wctype_ok])

text \<open>
  Property C18. Automatic semicolon insertion at a line end, for every set of valid tokens with the semicolon and
  without template characters and JSX text; these are the sets of the rows 3 and 5 of the parser's
  external states, as \<^theory_text>\<open>mozjs_semicolon_rows\<close> shows from the tables. When only white space stands
  between the previous token and a line end, and any white space and comments between it and the next
  token \<open>u\<close>, the scanner inserts a semicolon exactly when \<open>asi_before\<close> says so: not before punctuation that
  continues the expression, a lone plus or minus, \<^verbatim>\<open>!=\<close>, \<^verbatim>\<open>in\<close>
  or \<^verbatim>\<open>instanceof\<close>; and the token it inserts is empty, at the start of the white space.
  The exception is a question mark where the scanner stopped, when one is valid (row 3) and no comment was
  read: then the answer is that of the question mark's own scan, and the token ends behind it.
\<close>

theorem mozjs_semicolon_at_line_end:
  assumes "text_runtime R ahead marked" and "rt_is_at_included_range_start R = (\<lambda>s. False)" and "wctype_ok W"
    and "view_of ahead marked L = (sp @ e # t @ u, m, y)"
    and "\<forall>c \<in> set sp. iswspace W c \<and> \<not> js_eol c" and "js_eol e" and "js_trivia W t" and "js_token_start W u"
    and "valid AUTOMATIC_SEMICOLON" and "\<not> valid TEMPLATE_CHARS" and "\<not> valid JSX_TEXT"
  shows "\<exists>L'. tree_sitter_mozjs_external_scanner_scan W R L valid =
      Some (if asi_ternary W valid t u then ternary_at W (asi_stop W u) else asi_before W u, L') \<and>
    (\<not> asi_ternary W valid t u \<longrightarrow>
      view_marked (view_of ahead marked L') = sp @ e # t @ u \<and>
      result_symbol L' = mozjs_symbol AUTOMATIC_SEMICOLON) \<and>
    (asi_ternary W valid t u \<and> ternary_at W (asi_stop W u) \<longrightarrow>
      view_marked (view_of ahead marked L') = tl (asi_stop W u) \<and>
      result_symbol L' = mozjs_symbol TERNARY_QMARK)"
  using text_runtime.semicolon_scan_view [OF assms(1,3,2,6,4,5,7-11)] by (auto simp: view_of_def)

theorem mozjs_semicolon_at_line_end_witness:
  "\<exists>L'. tree_sitter_mozjs_external_scanner_scan C_wctype
      (cursor_runtime\<lparr>rt_is_at_included_range_start := \<lambda>s. False\<rparr>)
      (text_lexer ([CH_SPACE] @ CH_LF # (CH_SLASH # CH_STAR # [] @ CH_STAR # CH_SLASH # []) @ [CH_a]))
      (\<lambda>t. t \<in> {AUTOMATIC_SEMICOLON, TERNARY_QMARK, HTML_COMMENT, LOGICAL_OR}) = Some (True, L')"
proof -
  have R: "text_runtime (cursor_runtime\<lparr>rt_is_at_included_range_start := \<lambda>s. False\<rparr>) cur_ahead cur_marked"
    by unfold_locales (simp_all add: cursor_runtime_def)
  have t: "js_trivia C_wctype (CH_SLASH # CH_STAR # [] @ CH_STAR # CH_SLASH # [])"
    by (rule trivia_block [OF _ _ trivia_nil]) (simp_all add: sublist_Cons_right)
  have "asi_before C_wctype [CH_a]"
    by (simp add: js_continuing_def js_keyword_def)
  with mozjs_semicolon_at_line_end [OF R _ C_wctype_ok text_lexer_view _ _ t, of "[CH_SPACE]" CH_LF "[CH_a]"
      "\<lambda>t. t \<in> {AUTOMATIC_SEMICOLON, TERNARY_QMARK, HTML_COMMENT, LOGICAL_OR}"]
  show ?thesis
    by (auto simp: C_wctype_simps js_eol_def js_token_start_def asi_ternary_def)
qed

text \<open>
  Property C40. The test for \<^verbatim>\<open>in\<close> looks for a letter only. Whatever identifier at the
  start of a line begins with \<^verbatim>\<open>in\<close> and goes on with a digit, an underscore, a dollar sign or any
  other character that is no letter (and not a question mark, which no identifier holds) is taken for the
  operator and gets no semicolon before it, against the comment (and the language); one that goes
  on with a letter gets one, unless it starts like \<^verbatim>\<open>instanceof\<close>.
\<close>

theorem mozjs_identifier_in_misread:
  assumes "text_runtime R ahead marked" and "rt_is_at_included_range_start R = (\<lambda>s. False)" and "wctype_ok W"
    and "view_of ahead marked L = (sp @ e # t @ CH_i # CH_n # c # rest, m, y)"
    and "\<forall>b \<in> set sp. iswspace W b \<and> \<not> js_eol b" and "js_eol e" and "js_trivia W t" and "c \<noteq> CH_QMARK"
    and "valid AUTOMATIC_SEMICOLON" and "\<not> valid TEMPLATE_CHARS" and "\<not> valid JSX_TEXT"
  shows "(\<not> iswalpha W c \<longrightarrow>
      (\<exists>L'. tree_sitter_mozjs_external_scanner_scan W R L valid = Some (False, L'))) \<and>
    (iswalpha W c \<and> \<not> prefix js_stanceof (c # rest) \<longrightarrow>
      (\<exists>L'. tree_sitter_mozjs_external_scanner_scan W R L valid = Some (True, L')))"
proof -
  let ?u = "CH_i # CH_n # c # rest"
  have start: "js_token_start W ?u"
    using assms(3) by (simp add: js_token_start_def wctype_ok_def)
  have kw: "js_keyword W [CH_i, CH_n] ?u \<longleftrightarrow> \<not> iswalpha W c"
    by (simp add: js_keyword_def)
  have before: "asi_before W ?u \<longleftrightarrow> iswalpha W c \<and> \<not> js_keyword W ([CH_i, CH_n] @ js_stanceof) ?u"
    using kw by (auto simp: js_continuing_def)
  have "\<not> asi_ternary W valid t ?u" if "\<not> iswalpha W c"
    using that assms(8) kw by (simp add: asi_ternary_def asi_stop_def)
  moreover have "asi_before W ?u" if "iswalpha W c" "\<not> prefix js_stanceof (c # rest)"
    using that unfolding before by (simp add: js_keyword_def)
  ultimately show ?thesis
    using text_runtime.semicolon_scan_view [OF assms(1,3,2,6,4,5,7) start assms(9-11)] before
    by (auto simp: asi_ternary_def)
qed

theorem mozjs_identifier_in_misread_witness:
  "\<exists>L'. tree_sitter_mozjs_external_scanner_scan C_wctype
      (cursor_runtime\<lparr>rt_is_at_included_range_start := \<lambda>s. False\<rparr>)
      (text_lexer ([] @ CH_LF # [CH_SPACE] @ CH_i # CH_n # CH_9 # [CH_EQUALS]))
      (\<lambda>t. t \<in> {AUTOMATIC_SEMICOLON, HTML_COMMENT}) = Some (False, L')"
proof -
  have R: "text_runtime (cursor_runtime\<lparr>rt_is_at_included_range_start := \<lambda>s. False\<rparr>) cur_ahead cur_marked"
    by unfold_locales (simp_all add: cursor_runtime_def)
  have t: "js_trivia C_wctype [CH_SPACE]"
    by (rule trivia_space [OF _ trivia_nil]) (simp add: C_wctype_simps)
  from mozjs_identifier_in_misread [OF R _ C_wctype_ok text_lexer_view _ _ t, where sp = "[]" and e = CH_LF and c = CH_9
      and rest = "[CH_EQUALS]" and valid = "\<lambda>t. t \<in> {AUTOMATIC_SEMICOLON, HTML_COMMENT}"]
  show ?thesis
    by (simp add: C_wctype_simps js_eol_def)
qed

text \<open>
  Template characters: the scan stops at the first back quote, backslash or
  \<^verbatim>\<open>${\<close>, marks the token's end there (a dollar sign on its own is consumed), and accepts
  when the run before it is not empty; a NUL or the end of the input before that means no token.
\<close>

theorem mozjs_template_chars_correct:
  assumes "text_runtime R ahead marked" and "view_of ahead marked L = (xs, m, y)"
    and "valid TEMPLATE_CHARS" and "\<not> valid AUTOMATIC_SEMICOLON"
  shows "\<exists>L'. tree_sitter_mozjs_external_scanner_scan W R L valid =
      Some (fst (template_end xs) \<and> snd (template_end xs) \<noteq> xs, L') \<and>
    view_marked (view_of ahead marked L') = snd (template_end xs) \<and>
    result_symbol L' = mozjs_symbol TEMPLATE_CHARS"
  using text_runtime.template_chars_view
    [OF assms(1) text_runtime.set_symbol_view [OF assms(1,2)] prod.collapse [symmetric], of False 1] assms(3,4)
  by (auto simp: tree_sitter_mozjs_external_scanner_scan_def scan_template_chars_def view_of_def)

theorem mozjs_template_chars_correct_witness:
  "\<exists>L'. tree_sitter_mozjs_external_scanner_scan C_wctype cursor_runtime
      (text_lexer [CH_DOLLAR, CH_a, CH_DOLLAR, CH_LBRACE]) (\<lambda>t. t = TEMPLATE_CHARS) = Some (True, L') \<and>
    view_marked (view_of cur_ahead cur_marked L') = [CH_DOLLAR, CH_LBRACE]"
  using mozjs_template_chars_correct [OF cursor_text_runtime text_lexer_view,
      of "\<lambda>t. t = TEMPLATE_CHARS" C_wctype "[CH_DOLLAR, CH_a, CH_DOLLAR, CH_LBRACE]"]
  by auto

text \<open>
  JSX text: the scan runs to the next angle bracket, brace, ampersand or NUL, and
  accepts exactly when the text up to there holds a character that is neither a line break nor white
  space following one, which is what the table in the source's comment says; when it does not
  accept and no other token is valid, there is no token.
\<close>

theorem mozjs_jsx_text_correct:
  assumes "text_runtime R ahead marked" and "wctype_ok W" and "view_of ahead marked L = (xs, m, y)"
    and "valid = (\<lambda>t. t = JSX_TEXT)"
  shows "\<exists>L'. tree_sitter_mozjs_external_scanner_scan W R L valid =
      Some (jsx_counts W [] (takeWhile (\<lambda>c. \<not> jsx_stop c) xs), L') \<and>
    view_of ahead marked L' = (dropWhile (\<lambda>c. \<not> jsx_stop c) xs, m, mozjs_symbol JSX_TEXT)"
proof -
  have "\<not> after_newline W []"
    by (simp add: after_newline_def)
  with text_runtime.jsx_text_view [OF assms(1,2,3), of False "[]" False] show ?thesis
    by (auto simp: tree_sitter_mozjs_external_scanner_scan_def scan_jsx_text_def mozjs_scan_rest_def assms(4))
qed

theorem mozjs_jsx_text_correct_witness:
  "\<exists>L'. tree_sitter_mozjs_external_scanner_scan C_wctype cursor_runtime
      (text_lexer [CH_LF, CH_SPACE, CH_LT]) (\<lambda>t. t = JSX_TEXT) = Some (False, L')"
proof -
  have "\<not> jsx_counts C_wctype [] [CH_LF, CH_SPACE]"
    using after_newline_snoc [of C_wctype "[]" CH_LF]
    by (simp add: jsx_counts_Cons jsx_counts_Nil C_wctype_simps)
  with mozjs_jsx_text_correct [OF cursor_text_runtime C_wctype_ok text_lexer_view [of "[CH_LF, CH_SPACE, CH_LT]"] refl]
  show ?thesis
    by (auto simp: jsx_stop_def)
qed

text \<open>
  HTML-like comments: after white space the scan accepts exactly
  \<^verbatim>\<open><!--\<close> and \<^verbatim>\<open>-->\<close>, and the token runs to the end of the line, which
  it does not include.
\<close>

theorem mozjs_html_comment_correct:
  assumes "text_runtime R ahead marked" and "wctype_ok W" and "view_of ahead marked L = (xs, m, y)"
    and "valid = (\<lambda>t. t = HTML_COMMENT)" and "ys = dropWhile (js_blank_or_eol W) xs"
  shows "\<exists>L'. tree_sitter_mozjs_external_scanner_scan W R L valid =
      Some (prefix comment_start ys \<or> prefix comment_end ys, L') \<and>
    (prefix comment_start ys \<or> prefix comment_end ys \<longrightarrow>
     view_of ahead marked L' =
       (dropWhile js_in_line ys, dropWhile js_in_line ys, mozjs_symbol HTML_COMMENT))"
  using text_runtime.html_comment_view [OF assms(1,2,3,5)]
  by (auto simp: tree_sitter_mozjs_external_scanner_scan_def mozjs_scan_rest_def assms(4))

theorem mozjs_html_comment_correct_witness:
  "\<exists>L'. tree_sitter_mozjs_external_scanner_scan C_wctype cursor_runtime
      (text_lexer [CH_SPACE, CH_MINUS, CH_MINUS, CH_GT, CH_a, CH_LF]) (\<lambda>t. t = HTML_COMMENT) = Some (True, L') \<and>
    cur_ahead (rt_state L') = [CH_LF]"
  using mozjs_html_comment_correct [OF cursor_text_runtime C_wctype_ok
      text_lexer_view [of "[CH_SPACE, CH_MINUS, CH_MINUS, CH_GT, CH_a, CH_LF]"] refl refl]
  by (auto simp: js_blank_or_eol_def C_wctype_simps comment_end_def comment_start_def js_eol_def view_of_def)

text \<open>
  The ternary question mark: after white space the scan accepts a question mark that is
  not the start of \<^verbatim>\<open>??\<close>, nor of \<^verbatim>\<open>?.\<close> unless a digit follows
  (\<^verbatim>\<open>a?.5:b\<close>), and the token is the question mark alone.
\<close>

theorem mozjs_ternary_correct:
  assumes "text_runtime R ahead marked" and "wctype_ok W" and "view_of ahead marked L = (xs, m, y)"
    and "valid = (\<lambda>t. t = TERNARY_QMARK)" and "ys = dropWhile (iswspace W) xs"
  shows "\<exists>L'. tree_sitter_mozjs_external_scanner_scan W R L valid = Some (ternary_at W ys, L') \<and>
    (ternary_at W ys \<longrightarrow>
      view_marked (view_of ahead marked L') = tl ys \<and> result_symbol L' = mozjs_symbol TERNARY_QMARK)"
  using text_runtime.ternary_view [OF assms(1,2,3,5)]
  by (auto simp: tree_sitter_mozjs_external_scanner_scan_def mozjs_scan_rest_def assms(4) view_of_def)

theorem mozjs_ternary_correct_witness:
  "\<exists>L'. tree_sitter_mozjs_external_scanner_scan C_wctype cursor_runtime
      (text_lexer [CH_SPACE, CH_QMARK, CH_DOT, CH_9]) (\<lambda>t. t = TERNARY_QMARK) = Some (True, L') \<and>
    view_marked (view_of cur_ahead cur_marked L') = [CH_DOT, CH_9]"
  using mozjs_ternary_correct [OF cursor_text_runtime C_wctype_ok
      text_lexer_view [of "[CH_SPACE, CH_QMARK, CH_DOT, CH_9]"] refl refl]
  by (auto simp: C_wctype_simps ternary_at_def)

end
