(* ===== verification/Lexer_Munch.thy ===== *)
theory Lexer_Munch
  imports Lexer_Runtime
begin

text \<open>
  Generated lexers in general: the loop of \<^verbatim>\<open>START_LEXER\<close> over any switch that
  stops at NUL and at the end of input implements maximal munch. The switch is an automaton:
  \<open>lex_next\<close> is its step on a character, \<open>lex_run\<close> its run on a word, \<open>lex_accepts\<close> the token a
  state accepts given the text that follows.
\<close>

section \<open>The automaton of a switch\<close>

definition lex_next :: "lex_switch \<Rightarrow> TSStateId \<Rightarrow> codepoint \<Rightarrow> TSStateId option" where
  "lex_next sw s c = (case sw s False c of
       Some (acc, ADVANCE t) \<Rightarrow> Some t
     | Some (acc, SKIP t) \<Rightarrow> Some t
     | _ \<Rightarrow> None)"

fun lex_run :: "lex_switch \<Rightarrow> TSStateId \<Rightarrow> codepoint list \<Rightarrow> TSStateId option" where
  "lex_run sw s [] = Some s"
| "lex_run sw s (c # cs) = Option.bind (lex_next sw s c) (\<lambda>t. lex_run sw t cs)"

definition case_accepts :: "lex_switch \<Rightarrow> TSStateId \<Rightarrow> bool \<Rightarrow> codepoint \<Rightarrow> TSSymbol option" where
  "case_accepts sw s e c = (case sw s e c of Some (acc, j) \<Rightarrow> acc | None \<Rightarrow> None)"

text \<open>
  At the end of input a state may still jump once, to the state of the end token; that token then
  replaces what the state itself accepts.
\<close>

definition lex_accepts :: "lex_switch \<Rightarrow> TSStateId \<Rightarrow> codepoint list \<Rightarrow> TSSymbol option" where
  "lex_accepts sw s rest = (case rest of
       c # cs \<Rightarrow> case_accepts sw s False c
     | [] \<Rightarrow> (case sw s True 0 of
                Some (acc, ADVANCE t) \<Rightarrow>
                  (case case_accepts sw t True 0 of None \<Rightarrow> acc | Some y \<Rightarrow> Some y)
              | Some (acc, SKIP t) \<Rightarrow>
                  (case case_accepts sw t True 0 of None \<Rightarrow> acc | Some y \<Rightarrow> Some y)
              | Some (acc, END_STATE) \<Rightarrow> acc
              | None \<Rightarrow> None))"

text \<open>The longest token, computed: the last accepting state on the run, with what follows it.\<close>

definition better :: "lex_switch \<Rightarrow> TSStateId \<Rightarrow> codepoint list \<Rightarrow> (TSSymbol \<times> codepoint list) option
    \<Rightarrow> (TSSymbol \<times> codepoint list) option" where
  "better sw s rest best = (case lex_accepts sw s rest of None \<Rightarrow> best | Some y \<Rightarrow> Some (y, rest))"

fun munch :: "lex_switch \<Rightarrow> TSStateId \<Rightarrow> (TSSymbol \<times> codepoint list) option \<Rightarrow> codepoint list
    \<Rightarrow> (TSSymbol \<times> codepoint list) option" where
  "munch sw s best [] = better sw s [] best"
| "munch sw s best (c # cs) = (case lex_next sw s c of
       None \<Rightarrow> better sw s (c # cs) best
     | Some t \<Rightarrow> munch sw t (better sw s (c # cs) best) cs)"

text \<open>Maximal munch, stated without reference to the loop.\<close>

definition longest_token :: "lex_switch \<Rightarrow> TSStateId \<Rightarrow> codepoint list \<Rightarrow> TSSymbol \<Rightarrow> codepoint list \<Rightarrow> bool" where
  "longest_token sw s xs y rest \<longleftrightarrow>
     (\<exists>w t. xs = w @ rest \<and> lex_run sw s w = Some t \<and> lex_accepts sw t rest = Some y) \<and>
     (\<forall>w t zs. xs = w @ zs \<longrightarrow> length zs < length rest \<longrightarrow> lex_run sw s w = Some t
        \<longrightarrow> lex_accepts sw t zs = None)"

definition no_token :: "lex_switch \<Rightarrow> TSStateId \<Rightarrow> codepoint list \<Rightarrow> bool" where
  "no_token sw s xs \<longleftrightarrow>
     (\<forall>w t zs. xs = w @ zs \<longrightarrow> lex_run sw s w = Some t \<longrightarrow> lex_accepts sw t zs = None)"

lemma no_token_Nil: "no_token sw s [] \<longleftrightarrow> lex_accepts sw s [] = None"
  by (simp add: no_token_def)

lemma no_token_Cons:
  "no_token sw s (c # cs) \<longleftrightarrow> lex_accepts sw s (c # cs) = None \<and>
     (\<forall>t. lex_next sw s c = Some t \<longrightarrow> no_token sw t cs)"
  by (auto simp: no_token_def Cons_eq_append_conv bind_eq_Some_conv)

lemma longest_token_Nil:
  "longest_token sw s [] y rest \<longleftrightarrow> rest = [] \<and> lex_accepts sw s [] = Some y"
  by (auto simp: longest_token_def)

lemma longest_token_Cons:
  "longest_token sw s (c # cs) y rest \<longleftrightarrow>
     (\<exists>t. lex_next sw s c = Some t \<and> longest_token sw t cs y rest) \<or>
     rest = c # cs \<and> lex_accepts sw s (c # cs) = Some y \<and>
       (\<forall>t. lex_next sw s c = Some t \<longrightarrow> no_token sw t cs)"
  (is "?L \<longleftrightarrow> ?R1 \<or> ?R2")
proof
  assume L: ?L
  then obtain w t where w: "c # cs = w @ rest" "lex_run sw s w = Some t" "lex_accepts sw t rest = Some y"
    and max: "\<And>w t zs. c # cs = w @ zs \<Longrightarrow> length zs < length rest \<Longrightarrow> lex_run sw s w = Some t
        \<Longrightarrow> lex_accepts sw t zs = None"
    by (auto simp: longest_token_def)
  show "?R1 \<or> ?R2"
  proof (cases w)
    case Nil
    with w max [of "c # _"] show ?thesis
      by (auto simp: no_token_def)
  next
    case (Cons a v)
    with w obtain u where u: "lex_next sw s c = Some u" "lex_run sw u v = Some t" "cs = v @ rest"
      by (auto simp: bind_eq_Some_conv)
    have "longest_token sw u cs y rest"
      unfolding longest_token_def
      using u w(3) max [of "c # _"] by auto
    with u show ?thesis by blast
  qed
next
  assume "?R1 \<or> ?R2"
  then show ?L
  proof
    assume ?R1
    then obtain t where t: "lex_next sw s c = Some t" "longest_token sw t cs y rest" by blast
    then obtain w u where w: "cs = w @ rest" "lex_run sw t w = Some u" "lex_accepts sw u rest = Some y"
      by (auto simp: longest_token_def)
    have ex: "\<exists>w t. c # cs = w @ rest \<and> lex_run sw s w = Some t \<and> lex_accepts sw t rest = Some y"
      using t w by (intro exI [of _ "c # w"] exI [of _ u]) simp
    have "length rest < length (c # cs)"
      using w by simp
    with t ex show ?L
      by (auto simp: longest_token_def Cons_eq_append_conv bind_eq_Some_conv)
  next
    assume ?R2
    then show ?L
      by (fastforce simp: longest_token_def no_token_def Cons_eq_append_conv bind_eq_Some_conv)
  qed
qed

lemma munch_spec:
  "munch sw s best xs = Some (y, rest) \<longleftrightarrow>
     longest_token sw s xs y rest \<or> no_token sw s xs \<and> best = Some (y, rest)"
proof (induction xs arbitrary: s best)
  case Nil
  then show ?case
    by (auto simp: better_def longest_token_Nil no_token_Nil split: option.splits)
next
  case (Cons c cs)
  show ?case
    by (cases "lex_next sw s c")
      (auto simp: Cons.IH better_def longest_token_Cons no_token_Cons split: option.splits)
qed

lemma munch_None: "munch sw s best xs = None \<longleftrightarrow> no_token sw s xs \<and> best = None"
proof (induction xs arbitrary: s best)
  case Nil
  then show ?case
    by (auto simp: better_def no_token_Nil split: option.splits)
next
  case (Cons c cs)
  then show ?case
    by (auto simp: better_def no_token_Cons split: option.splits)
qed

lemma longest_token_unique:
  assumes "longest_token sw s xs y rest" and "longest_token sw s xs y' rest'"
  shows "y = y' \<and> rest = rest'"
  using assms munch_spec [of sw s None xs y rest] munch_spec [of sw s None xs y' rest'] by simp

section \<open>Closed switches\<close>

text \<open>
  What the generated switches guarantee: every state jumps to a state, and a jump taken at the end
  of input (to the state that accepts the end token) is the last one.
\<close>

locale closed_switch =
  fixes sw :: lex_switch and n :: nat
  assumes closed: "s < n \<Longrightarrow> \<exists>acc j. sw s e c = Some (acc, j) \<and>
      (\<forall>t. j = ADVANCE t \<or> j = SKIP t \<longrightarrow> t < n)"
    and eof_once: "s < n \<Longrightarrow> sw s True 0 = Some (acc, j) \<Longrightarrow> j = ADVANCE t \<or> j = SKIP t \<Longrightarrow>
      \<exists>acc'. sw t True 0 = Some (acc', END_STATE)"
begin

lemma lex_next_bound: "s < n \<Longrightarrow> lex_next sw s c = Some t \<Longrightarrow> t < n"
  using closed [of s False c] by (auto simp: lex_next_def split: lex_goto.splits)

lemma lex_run_bound: "s < n \<Longrightarrow> lex_run sw s w = Some t \<Longrightarrow> t < n"
  by (induction w arbitrary: s) (auto simp: bind_eq_Some_conv dest: lex_next_bound)

end

section \<open>Switches given as a list of cases\<close>

text \<open>
  A generated \<^verbatim>\<open>ts_lex\<close> is a list of cases, tried by number. Its closedness is checked
  case by case.
\<close>

definition goto_target :: "lex_goto \<Rightarrow> TSStateId option" where
  "goto_target j = (case j of ADVANCE t \<Rightarrow> Some t | SKIP t \<Rightarrow> Some t | END_STATE \<Rightarrow> None)"

lemma goto_target_simps [simp]:
  "goto_target (ADVANCE t) = Some t"
  "goto_target (SKIP t) = Some t"
  "goto_target END_STATE = None"
  "goto_target (if b then j else k) = (if b then goto_target j else goto_target k)"
  by (simp_all add: goto_target_def)

lemma goto_target_eq_Some: "goto_target j = Some t \<longleftrightarrow> j = ADVANCE t \<or> j = SKIP t"
  by (cases j) auto

definition goto_bounded :: "nat \<Rightarrow> lex_goto \<Rightarrow> bool" where
  "goto_bounded n j = (case j of ADVANCE t \<Rightarrow> t < n | SKIP t \<Rightarrow> t < n | END_STATE \<Rightarrow> True)"

lemma goto_bounded_simps [simp]:
  "goto_bounded n (ADVANCE t) \<longleftrightarrow> t < n"
  "goto_bounded n (SKIP t) \<longleftrightarrow> t < n"
  "goto_bounded n END_STATE"
  "goto_bounded n (if b then j else k) \<longleftrightarrow> (if b then goto_bounded n j else goto_bounded n k)"
  by (simp_all add: goto_bounded_def)

lemma ADVANCE_MAP_mem: "ADVANCE_MAP m la = Some st \<Longrightarrow> (la, st) \<in> set m"
  by (induction m la rule: ADVANCE_MAP.induct) (auto split: if_splits)

text \<open>As introduction rules, so that the conditions of a case are not looked at.\<close>

lemma goto_bounded_intros:
  "t < n \<Longrightarrow> goto_bounded n (ADVANCE t)"
  "t < n \<Longrightarrow> goto_bounded n (SKIP t)"
  "goto_bounded n END_STATE"
  "goto_bounded n j \<Longrightarrow> goto_bounded n k \<Longrightarrow> goto_bounded n (if b then j else k)"
  "list_all (\<lambda>p. snd p < n) m \<Longrightarrow> goto_bounded n j \<Longrightarrow>
    goto_bounded n (case ADVANCE_MAP m la of Some st \<Rightarrow> ADVANCE st | None \<Rightarrow> j)"
  by (auto simp: list_all_iff split: option.splits dest!: ADVANCE_MAP_mem)

definition eof_stop :: "(bool \<Rightarrow> codepoint \<Rightarrow> lex_case) list \<Rightarrow> (bool \<Rightarrow> codepoint \<Rightarrow> lex_case) \<Rightarrow> bool" where
  "eof_stop cases f = (case goto_target (snd (f True 0)) of
       None \<Rightarrow> True | Some t \<Rightarrow> snd ((cases ! t) True 0) = END_STATE)"

locale case_switch =
  fixes sw :: lex_switch and n :: nat and cases :: "(bool \<Rightarrow> codepoint \<Rightarrow> lex_case) list"
  assumes switch: "sw s e c = (if s < n then Some ((cases ! s) e c) else None)"
    and len: "length cases = n"
    and bounded: "list_all (\<lambda>f. \<forall>e c. goto_bounded n (snd (f e c))) cases"
    and stop: "list_all (eof_stop cases) cases"
begin

lemma case_bounded: "s < n \<Longrightarrow> goto_bounded n (snd ((cases ! s) e c))"
  using bounded len by (auto simp: list_all_length)

lemma case_target: "s < n \<Longrightarrow> goto_target (snd ((cases ! s) e c)) = Some t \<Longrightarrow> t < n"
  using case_bounded [of s e c] by (auto simp: goto_target_eq_Some)

lemma case_stop:
  "s < n \<Longrightarrow> goto_target (snd ((cases ! s) True 0)) = Some t \<Longrightarrow> snd ((cases ! t) True 0) = END_STATE"
  using stop len by (auto simp: list_all_length eof_stop_def)

lemma next_eq: "s < n \<Longrightarrow> lex_next sw s c = goto_target (snd ((cases ! s) False c))"
  by (cases "(cases ! s) False c") (simp add: lex_next_def switch goto_target_def)

lemma case_accepts_eq: "s < n \<Longrightarrow> case_accepts sw s e c = fst ((cases ! s) e c)"
  by (cases "(cases ! s) e c") (simp add: case_accepts_def switch)

lemma accepts_Cons: "s < n \<Longrightarrow> lex_accepts sw s (c # cs) = fst ((cases ! s) False c)"
  by (simp add: lex_accepts_def case_accepts_eq)

lemma accepts_Nil:
  "s < n \<Longrightarrow> lex_accepts sw s [] = (case goto_target (snd ((cases ! s) True 0)) of
       None \<Rightarrow> fst ((cases ! s) True 0)
     | Some t \<Rightarrow> (case fst ((cases ! t) True 0) of None \<Rightarrow> fst ((cases ! s) True 0) | Some y \<Rightarrow> Some y))"
  using case_target [of s True 0]
  by (cases "(cases ! s) True 0")
    (auto simp: lex_accepts_def switch goto_target_def case_accepts_eq split: lex_goto.split option.split)

lemmas switch_eval = next_eq accepts_Cons accepts_Nil case_accepts_eq

end

sublocale case_switch \<subseteq> closed_switch sw n
proof
  fix s e c assume "s < n"
  then show "\<exists>acc j. sw s e c = Some (acc, j) \<and> (\<forall>t. j = ADVANCE t \<or> j = SKIP t \<longrightarrow> t < n)"
    using case_bounded [of s e c] by (cases "(cases ! s) e c") (auto simp: switch)
next
  fix s acc j t
  assume s: "s < n" "sw s True 0 = Some (acc, j)" "j = ADVANCE t \<or> j = SKIP t"
  then have j: "goto_target (snd ((cases ! s) True 0)) = Some t"
    by (auto simp: switch goto_target_eq_Some)
  then show "\<exists>acc'. sw t True 0 = Some (acc', END_STATE)"
    using case_target [OF s(1) j] case_stop [OF s(1) j]
    by (cases "(cases ! t) True 0") (simp add: switch)
qed

text \<open>The token a lexer object has recorded: its symbol and the text after it.\<close>

definition recorded :: "('s \<Rightarrow> codepoint list) \<Rightarrow> bool \<Rightarrow> 's TSLexer \<Rightarrow> (TSSymbol \<times> codepoint list) option" where
  "recorded marked result L =
     (if result then Some (result_symbol L, marked (rt_state L)) else None)"

locale lexer_on_text = text_runtime + closed_switch
begin

definition accept_opt :: "TSSymbol option \<Rightarrow> 'a TSLexer \<Rightarrow> 'a TSLexer" where
  "accept_opt acc L = (case acc of None \<Rightarrow> L | Some y \<Rightarrow> ACCEPT_TOKEN R y L)"

lemma accept_opt_ahead: "ahead (rt_state (accept_opt acc L)) = ahead (rt_state L)"
  by (simp add: accept_opt_def ACCEPT_TOKEN_def runtime_simps split: option.split)

lemma recorded_advance: "recorded marked r (lexer_advance R skip L) = recorded marked r L"
  by (simp add: recorded_def runtime_simps)

lemma recorded_accept:
  "recorded marked (r \<or> acc \<noteq> None) (accept_opt acc L) =
     (case acc of None \<Rightarrow> recorded marked r L | Some y \<Rightarrow> Some (y, ahead (rt_state L)))"
  by (simp add: recorded_def accept_opt_def ACCEPT_TOKEN_def runtime_simps split: option.split)

lemma recorded_accept_None: "recorded marked r (accept_opt None L) = recorded marked r L"
  by (simp add: accept_opt_def)

lemma recorded_accept_Some:
  "recorded marked True (accept_opt (Some y) L) = Some (y, ahead (rt_state L))"
  by (simp add: recorded_def accept_opt_def ACCEPT_TOKEN_def runtime_simps)

lemmas recorded_simps = recorded_accept_None recorded_accept_Some recorded_advance

lemma lex_loop_unfold:
  assumes "sw s (lexer_eof R L) (lookahead R L) = Some (acc, j)"
  shows "lex_loop R sw s r L = (case j of
      END_STATE \<Rightarrow> Some (r \<or> acc \<noteq> None, accept_opt acc L)
    | ADVANCE t \<Rightarrow> lex_loop R sw t (r \<or> acc \<noteq> None) (lexer_advance R False (accept_opt acc L))
    | SKIP t \<Rightarrow> lex_loop R sw t (r \<or> acc \<noteq> None) (lexer_advance R True (accept_opt acc L)))"
  using assms
  by (subst lex_loop.simps) (cases j; cases acc; simp add: accept_opt_def Let_def)

lemma lex_loop_end_of_input:
  assumes "s < n" and "ahead (rt_state L) = []"
  shows "\<exists>r' L'. lex_loop R sw s r L = Some (r', L') \<and>
    recorded marked r' L' = better sw s [] (recorded marked r L)"
proof -
  obtain acc j where sw: "sw s True 0 = Some (acc, j)"
    using closed [OF \<open>s < n\<close>, of True 0] by blast
  have eof: "lexer_eof R M" "lookahead R M = 0" if "ahead (rt_state M) = []" for M
    using that by (simp_all add: eof_iff la_Nil)
  note unfold = lex_loop_unfold [where L = L, unfolded eof [OF assms(2)]]
  show ?thesis
  proof (cases j)
    case END_STATE
    then show ?thesis
      using sw assms(2)
      by (subst unfold [of _ acc j])
        (auto simp: recorded_simps better_def lex_accepts_def eof split: option.split)
  next
    case (ADVANCE t)
    obtain acc' where t: "sw t True 0 = Some (acc', END_STATE)"
      using eof_once [OF \<open>s < n\<close> sw] ADVANCE by blast
    let ?M = "lexer_advance R False (accept_opt acc L)"
    have M: "ahead (rt_state ?M) = []"
      using assms(2) by (simp add: runtime_simps accept_opt_ahead)
    show ?thesis
      using sw ADVANCE t assms(2) M
      by (auto simp: unfold [of _ acc j] lex_loop_unfold [where L = ?M, of _ acc' END_STATE] eof
          recorded_simps accept_opt_ahead better_def lex_accepts_def case_accepts_def
          split: option.split)
  next
    case (SKIP t)
    obtain acc' where t: "sw t True 0 = Some (acc', END_STATE)"
      using eof_once [OF \<open>s < n\<close> sw] SKIP by blast
    let ?M = "lexer_advance R True (accept_opt acc L)"
    have M: "ahead (rt_state ?M) = []"
      using assms(2) by (simp add: runtime_simps accept_opt_ahead)
    show ?thesis
      using sw SKIP t assms(2) M
      by (auto simp: unfold [of _ acc j] lex_loop_unfold [where L = ?M, of _ acc' END_STATE] eof
          recorded_simps accept_opt_ahead better_def lex_accepts_def case_accepts_def
          split: option.split)
  qed
qed

text \<open>The loop returns, and what it has recorded is the longest token.\<close>

lemma lex_loop_munch:
  "s < n \<Longrightarrow> \<exists>r' L'. lex_loop R sw s r L = Some (r', L') \<and>
     recorded marked r' L' = munch sw s (recorded marked r L) (ahead (rt_state L))"
proof (induction "ahead (rt_state L)" arbitrary: s r L)
  case Nil
  then show ?case
    using lex_loop_end_of_input [of s L r] by simp
next
  case (Cons c cs)
  obtain acc j where sw: "sw s False c = Some (acc, j)" and bound: "\<And>t. j = ADVANCE t \<or> j = SKIP t \<Longrightarrow> t < n"
    using closed [OF Cons.prems, of False c] by blast
  have la: "lookahead R L = c" and eof: "\<not> lexer_eof R L"
    using Cons.hyps(2) [symmetric] by (simp_all add: la_Cons eof_iff)
  note unfold = lex_loop_unfold [of s L acc j r]
  have best: "recorded marked (r \<or> acc \<noteq> None) (lexer_advance R skip (accept_opt acc L)) =
      better sw s (c # cs) (recorded marked r L)" for skip
    using sw Cons.hyps(2) [symmetric]
    by (cases acc) (simp_all add: recorded_simps better_def lex_accepts_def case_accepts_def)
  have ahead: "cs = ahead (rt_state (lexer_advance R skip (accept_opt acc L)))" for skip
    using Cons.hyps(2) [symmetric] by (simp add: runtime_simps accept_opt_ahead)
  have next_END: "lex_next sw s c = (case j of ADVANCE t \<Rightarrow> Some t | SKIP t \<Rightarrow> Some t | END_STATE \<Rightarrow> None)"
    using sw by (simp add: lex_next_def)
  show ?case
  proof (cases j)
    case END_STATE
    then show ?thesis
      using sw la eof next_END best [of False] Cons.hyps(2) [symmetric]
      by (simp add: unfold recorded_advance)
  next
    case (ADVANCE t)
    with bound have "t < n" by simp
    from Cons.hyps(1) [OF ahead [of False] this, of "r \<or> acc \<noteq> None"] show ?thesis
      using sw la eof next_END ADVANCE best [of False] Cons.hyps(2) [symmetric] ahead [of False, symmetric]
      by (simp add: unfold)
  next
    case (SKIP t)
    with bound have "t < n" by simp
    from Cons.hyps(1) [OF ahead [of True] this, of "r \<or> acc \<noteq> None"] show ?thesis
      using sw la eof next_END SKIP best [of True] Cons.hyps(2) [symmetric] ahead [of True, symmetric]
      by (simp add: unfold)
  qed
qed

lemma lex_fn_munch:
  "s < n \<Longrightarrow> \<exists>r' L'. lex_fn R sw s L = Some (r', L') \<and>
     recorded marked r' L' = munch sw s None (ahead (rt_state L))"
  using lex_loop_munch [of s False L] by (simp add: lex_fn_def recorded_def)

lemma lex_fn_longest:
  assumes "s < n"
  shows "\<exists>r' L'. lex_fn R sw s L = Some (r', L') \<and>
    (r' \<longrightarrow> longest_token sw s (ahead (rt_state L)) (result_symbol L') (marked (rt_state L'))) \<and>
    (\<not> r' \<longrightarrow> no_token sw s (ahead (rt_state L)))"
proof -
  obtain r' L' where L': "lex_fn R sw s L = Some (r', L')"
    and rec: "recorded marked r' L' = munch sw s None (ahead (rt_state L))"
    using lex_fn_munch [OF assms] by blast
  have "r' \<longrightarrow> longest_token sw s (ahead (rt_state L)) (result_symbol L') (marked (rt_state L'))"
    using rec munch_spec [of sw s None "ahead (rt_state L)" "result_symbol L'" "marked (rt_state L')"]
    by (auto simp: recorded_def)
  moreover have "\<not> r' \<longrightarrow> no_token sw s (ahead (rt_state L))"
    using rec munch_None [of sw s None "ahead (rt_state L)"] by (auto simp: recorded_def)
  ultimately show ?thesis
    using L' by blast
qed

lemma lex_fn_token:
  assumes "s < n" and "munch sw s None (ahead (rt_state L)) = Some (y, rest)"
  shows "\<exists>L'. lex_fn R sw s L = Some (True, L') \<and> result_symbol L' = y \<and> marked (rt_state L') = rest"
  using lex_fn_munch [OF assms(1), of L] assms(2) by (auto simp: recorded_def split: if_splits)

lemma lex_fn_no_token:
  assumes "s < n" and "munch sw s None (ahead (rt_state L)) = None"
  shows "\<exists>L'. lex_fn R sw s L = Some (False, L')"
  using lex_fn_munch [OF assms(1), of L] assms(2) by (auto simp: recorded_def split: if_splits)

end

end
