(* ===== verification/Token_Regex.thy ===== *)
theory Token_Regex
  imports Lexer_Munch
begin

text \<open>
  The token definitions of a \<^verbatim>\<open>grammar.js\<close> are regular expressions. They are given
  here as expressions with character classes, with their language and Brzozowski derivatives, so
  that the language of a generated lexer state can be compared with the expression it was
  generated from.
\<close>

section \<open>Expressions and their languages\<close>

datatype regex =
    Empty
  | Eps
  | Class "codepoint \<Rightarrow> bool"
  | Seq regex regex
  | Alt regex regex
  | Star regex

inductive matches :: "regex \<Rightarrow> codepoint list \<Rightarrow> bool" where
  Eps: "matches Eps []"
| Class: "p c \<Longrightarrow> matches (Class p) [c]"
| Seq: "matches r u \<Longrightarrow> matches q v \<Longrightarrow> matches (Seq r q) (u @ v)"
| AltL: "matches r w \<Longrightarrow> matches (Alt r q) w"
| AltR: "matches q w \<Longrightarrow> matches (Alt r q) w"
| Star_Nil: "matches (Star r) []"
| Star_step: "matches r u \<Longrightarrow> matches (Star r) v \<Longrightarrow> matches (Star r) (u @ v)"

inductive_simps matches_Empty [simp]: "matches Empty w"
inductive_simps matches_Eps [simp]: "matches Eps w"
inductive_simps matches_Class: "matches (Class p) w"
inductive_simps matches_Seq: "matches (Seq r q) w"
inductive_simps matches_Alt [simp]: "matches (Alt r q) w"

abbreviation Char :: "codepoint \<Rightarrow> regex" where
  "Char c \<equiv> Class (\<lambda>x. x = c)"

definition Plus :: "regex \<Rightarrow> regex" where
  "Plus r = Seq r (Star r)"

definition Opt :: "regex \<Rightarrow> regex" where
  "Opt r = Alt Eps r"

fun Word :: "codepoint list \<Rightarrow> regex" where
  "Word [] = Eps"
| "Word [c] = Char c"
| "Word (c # cs) = Seq (Char c) (Word cs)"

section \<open>Derivatives\<close>

fun nullable :: "regex \<Rightarrow> bool" where
  "nullable Empty = False"
| "nullable Eps = True"
| "nullable (Class p) = False"
| "nullable (Seq r q) = (nullable r \<and> nullable q)"
| "nullable (Alt r q) = (nullable r \<or> nullable q)"
| "nullable (Star r) = True"

fun deriv :: "codepoint \<Rightarrow> regex \<Rightarrow> regex" where
  "deriv c Empty = Empty"
| "deriv c Eps = Empty"
| "deriv c (Class p) = (if p c then Eps else Empty)"
| "deriv c (Seq r q) =
     (if nullable r then Alt (Seq (deriv c r) q) (deriv c q) else Seq (deriv c r) q)"
| "deriv c (Alt r q) = Alt (deriv c r) (deriv c q)"
| "deriv c (Star r) = Seq (deriv c r) (Star r)"

lemma matches_Nil: "matches r [] \<longleftrightarrow> nullable r"
proof (induction r)
  case (Seq r q)
  then show ?case by (auto simp: matches_Seq)
next
  case (Star r)
  then show ?case by (auto intro: matches.Star_Nil)
qed (auto simp: matches_Class)

lemma matches_Star_Cons:
  "matches (Star r) (c # w) \<longleftrightarrow> (\<exists>u v. w = u @ v \<and> matches r (c # u) \<and> matches (Star r) v)"
proof
  assume "matches (Star r) (c # w)"
  then show "\<exists>u v. w = u @ v \<and> matches r (c # u) \<and> matches (Star r) v"
  proof (induction "Star r" "c # w" rule: matches.induct)
    case (Star_step u v)
    then show ?case by (cases u) auto
  qed
next
  assume "\<exists>u v. w = u @ v \<and> matches r (c # u) \<and> matches (Star r) v"
  then obtain u v where "w = u @ v" "matches r (c # u)" "matches (Star r) v" by blast
  then show "matches (Star r) (c # w)"
    using matches.Star_step [of r "c # u" v] by simp
qed

lemma matches_Cons: "matches r (c # w) \<longleftrightarrow> matches (deriv c r) w"
proof (induction r arbitrary: w)
  case (Seq r q)
  then show ?case
    by (auto simp: matches_Seq Cons_eq_append_conv matches_Nil; metis matches_Nil)
next
  case (Star r)
  then show ?case
    by (simp add: matches_Star_Cons matches_Seq)
qed (auto simp: matches_Class)

lemma matches_Seq_Empty [simp]: "matches (Seq Empty q) w \<longleftrightarrow> False"
  by (simp add: matches_Seq)

lemma matches_Seq_Eps [simp]: "matches (Seq Eps q) w \<longleftrightarrow> matches q w"
  by (auto simp: matches_Seq)

lemma matches_Seq_Alt [simp]: "matches (Seq (Alt a b) q) w \<longleftrightarrow> matches (Seq a q) w \<or> matches (Seq b q) w"
  by (auto simp: matches_Seq)

lemma matches_Seq_assoc [simp]: "matches (Seq (Seq a b) q) w \<longleftrightarrow> matches (Seq a (Seq b q)) w"
  by (simp add: matches_Seq) (metis append.assoc)

lemma matches_Seq_Star: "matches (Seq (Star a) q) w \<longleftrightarrow> matches q w \<or> matches (Seq a (Seq (Star a) q)) w"
proof (cases w)
  case Nil
  then show ?thesis by (auto simp: matches_Nil)
next
  case (Cons c cs)
  have "matches (Seq (Star a) q) (c # cs) \<longleftrightarrow> matches q (c # cs) \<or> matches (Seq (deriv c a) (Seq (Star a) q)) cs"
    by (auto simp: matches_Cons)
  moreover have "matches (Seq a (Seq (Star a) q)) (c # cs) \<longrightarrow>
      matches q (c # cs) \<or> matches (Seq (deriv c a) (Seq (Star a) q)) cs"
    by (auto simp: matches_Cons)
  ultimately show ?thesis
    using Cons by (auto simp: matches_Cons)
qed

section \<open>The language of a lexer state\<close>

definition state_accepts :: "lex_switch \<Rightarrow> TSStateId \<Rightarrow> TSSymbol option" where
  "state_accepts sw t = case_accepts sw t False 0"

definition token_word :: "lex_switch \<Rightarrow> TSStateId \<Rightarrow> TSSymbol \<Rightarrow> codepoint list \<Rightarrow> bool" where
  "token_word sw s y w \<longleftrightarrow> (\<exists>t. lex_run sw s w = Some t \<and> state_accepts sw t = Some y)"

lemma token_word_Nil: "token_word sw s y [] \<longleftrightarrow> state_accepts sw s = Some y"
  by (simp add: token_word_def)

lemma token_word_Cons:
  "token_word sw s y (c # w) \<longleftrightarrow>
     (case lex_next sw s c of None \<Rightarrow> False | Some t \<Rightarrow> token_word sw t y w)"
  by (auto simp: token_word_def split: option.split)

lemma token_word_append:
  "token_word sw s y (u @ v) \<longleftrightarrow> (\<exists>t. lex_run sw s u = Some t \<and> token_word sw t y v)"
  by (induction u arbitrary: s) (auto simp: token_word_Cons bind_eq_Some_conv split: option.splits)

lemma token_word_avoid:
  assumes step: "\<And>s c t. s \<in> set S \<Longrightarrow> lex_next sw s c = Some t \<Longrightarrow> t \<in> set S"
    and accepts: "\<And>s. s \<in> set S \<Longrightarrow> state_accepts sw s \<noteq> Some y"
  shows "s \<in> set S \<Longrightarrow> \<not> token_word sw s y w"
  by (induction w arbitrary: s)
    (auto simp: token_word_Nil token_word_Cons accepts dest: step split: option.split)

text \<open>The same over a list of cases, as a check by evaluation.\<close>

definition goto_within :: "TSStateId list \<Rightarrow> lex_goto \<Rightarrow> bool" where
  "goto_within S j = (case j of ADVANCE t \<Rightarrow> t \<in> set S | SKIP t \<Rightarrow> t \<in> set S | END_STATE \<Rightarrow> True)"

lemma goto_within_simps [simp]:
  "goto_within S (ADVANCE t) \<longleftrightarrow> t \<in> set S"
  "goto_within S (SKIP t) \<longleftrightarrow> t \<in> set S"
  "goto_within S END_STATE"
  "goto_within S (if b then j else k) \<longleftrightarrow> (if b then goto_within S j else goto_within S k)"
  by (simp_all add: goto_within_def)

lemma goto_within_intros:
  "t \<in> set S \<Longrightarrow> goto_within S (ADVANCE t)"
  "t \<in> set S \<Longrightarrow> goto_within S (SKIP t)"
  "goto_within S END_STATE"
  "goto_within S j \<Longrightarrow> goto_within S k \<Longrightarrow> goto_within S (if b then j else k)"
  "list_all (\<lambda>p. snd p \<in> set S) m \<Longrightarrow> goto_within S j \<Longrightarrow>
    goto_within S (case ADVANCE_MAP m la of Some st \<Rightarrow> ADVANCE st | None \<Rightarrow> j)"
  by (auto simp: list_all_iff split: option.splits dest!: ADVANCE_MAP_mem)

definition avoids :: "(bool \<Rightarrow> codepoint \<Rightarrow> lex_case) list \<Rightarrow> TSStateId list \<Rightarrow> TSSymbol \<Rightarrow> bool" where
  "avoids cases S y \<longleftrightarrow> list_all (\<lambda>s. fst ((cases ! s) False 0) \<noteq> Some y \<and>
     (\<forall>c. goto_within S (snd ((cases ! s) False c)))) S"

context case_switch
begin

lemma state_accepts_eq: "s < n \<Longrightarrow> state_accepts sw s = fst ((cases ! s) False 0)"
  by (simp add: state_accepts_def case_accepts_eq)

lemma avoids_token_word:
  assumes bound: "list_all (\<lambda>s. s < n) S" and avoids: "avoids cases S y"
  shows "s \<in> set S \<Longrightarrow> \<not> token_word sw s y w"
proof (rule token_word_avoid)
  fix s c t assume s: "s \<in> set S" "lex_next sw s c = Some t"
  then have "goto_target (snd ((cases ! s) False c)) = Some t"
    using bound by (auto simp: list_all_iff next_eq)
  then show "t \<in> set S"
    using avoids s(1) goto_within_simps(1,2) [of S t]
    by (auto simp: avoids_def list_all_iff goto_target_eq_Some) (metis goto_within_simps(1,2))+
next
  fix s assume "s \<in> set S"
  then show "state_accepts sw s \<noteq> Some y"
    using bound avoids by (auto simp: avoids_def list_all_iff state_accepts_eq)
qed

end

lemma matches_Star_absorb [simp]:
  "matches (Seq (Star a) q) w \<or> matches q w \<longleftrightarrow> matches (Seq (Star a) q) w"
  "matches q w \<or> matches (Seq (Star a) q) w \<longleftrightarrow> matches (Seq (Star a) q) w"
  by (auto simp: matches_Seq_Star)

lemma matches_Star_Class: "matches (Star (Class p)) w \<longleftrightarrow> (\<forall>c \<in> set w. p c)"
  by (induction w) (auto simp: matches_Nil matches_Cons)

lemma matches_Plus_Class: "matches (Plus (Class p)) w \<longleftrightarrow> w \<noteq> [] \<and> (\<forall>c \<in> set w. p c)"
  by (cases w) (simp_all add: Plus_def matches_Nil matches_Cons matches_Star_Class)

lemma matches_Seq_Star_Class:
  assumes "\<And>c. p c \<Longrightarrow> q c"
  shows "matches (Seq (Star (Class q)) (Seq (Star (Class p)) r)) w \<longleftrightarrow> matches (Seq (Star (Class q)) r) w"
proof
  assume "matches (Seq (Star (Class q)) (Seq (Star (Class p)) r)) w"
  then obtain u v x where "w = u @ v @ x" "\<forall>c \<in> set u. q c" "\<forall>c \<in> set v. p c" "matches r x"
    unfolding matches_Seq matches_Star_Class by blast
  then have "w = (u @ v) @ x" "\<forall>c \<in> set (u @ v). q c" "matches r x"
    using assms by auto
  then show "matches (Seq (Star (Class q)) r) w"
    unfolding matches_Seq matches_Star_Class by blast
next
  assume "matches (Seq (Star (Class q)) r) w"
  then show "matches (Seq (Star (Class q)) (Seq (Star (Class p)) r)) w"
    by (auto simp: matches_Seq matches_Star_Class) (metis append_Nil empty_iff list.set(1))
qed

end
