(* ===== verification/C_Tokens.thy ===== *)
theory C_Tokens
  imports Token_Regex
begin

text \<open>
  The tokens of C that the comment and the preprocessor grammar both have, with the same patterns:
  comments, string and character literals, the rest of a directive line. The generated lexers
  have the same states for them under different numbers; two locales state what these states do, and
  their languages are derived here once.
\<close>

section \<open>The patterns\<close>

text \<open>A dot is any character but the newline; blanks are the extras of a grammar.\<close>

abbreviation re_dot :: regex where
  "re_dot \<equiv> Class (\<lambda>c. c \<noteq> CH_LF)"

abbreviation re_blank :: regex where
  "re_blank \<equiv> Class (\<lambda>c. CH_TAB \<le> c \<and> c \<le> CH_CR \<or> c = CH_SPACE)"

abbreviation re_space :: regex where
  "re_space \<equiv> Class (\<lambda>c. c = CH_SPACE \<or> c = CH_TAB)"

definition line_comment_body :: regex where
  "line_comment_body =
     Star (Alt (Seq (Char CH_BACKSLASH) (Alt re_dot (Seq (Opt (Char CH_CR)) (Char CH_LF))))
               (Class (\<lambda>c. c \<noteq> CH_BACKSLASH \<and> c \<noteq> CH_LF)))"

definition line_comment_regex :: regex where
  "line_comment_regex = Seq (Word [CH_SLASH, CH_SLASH]) line_comment_body"

definition block_comment_tail :: regex where
  "block_comment_tail =
     Seq (Star (Seq (Class (\<lambda>c. c \<noteq> CH_SLASH \<and> c \<noteq> CH_STAR))
                (Seq (Star (Class (\<lambda>c. c \<noteq> CH_STAR))) (Plus (Char CH_STAR)))))
       (Char CH_SLASH)"

definition block_comment_regex :: regex where
  "block_comment_regex = Seq (Word [CH_SLASH, CH_STAR])
     (Seq (Star (Class (\<lambda>c. c \<noteq> CH_STAR))) (Seq (Plus (Char CH_STAR)) block_comment_tail))"

definition comment_regex :: regex where
  "comment_regex = Alt line_comment_regex block_comment_regex"

definition quoted_body :: "codepoint \<Rightarrow> regex" where
  "quoted_body q = Seq (Star (Alt (Class (\<lambda>c. c \<noteq> CH_BACKSLASH \<and> c \<noteq> q))
                     (Seq (Char CH_BACKSLASH) (Alt re_dot (Char CH_LF))))) (Char q)"

definition string_regex :: regex where
  "string_regex = Seq (Char CH_DQUOTE) (quoted_body CH_DQUOTE)"

definition char_regex :: regex where
  "char_regex = Seq (Char CH_QUOTE) (quoted_body CH_QUOTE)"

definition continuation_regex :: regex where
  "continuation_regex =
     Seq (Star re_dot) (Seq (Char CH_BACKSLASH) (Seq (Opt (Char CH_CR)) (Char CH_LF)))"

lemmas regex_step = token_word_Nil token_word_Cons matches_Nil matches_Cons Plus_def Opt_def

lemma comment_deriv: "c \<noteq> CH_SLASH \<Longrightarrow> \<not> matches (deriv c comment_regex) w"
  by (simp add: comment_regex_def line_comment_regex_def block_comment_regex_def)

lemma comment_not_nullable: "\<not> nullable comment_regex"
  by (simp add: comment_regex_def line_comment_regex_def block_comment_regex_def)

section \<open>Quoted literals\<close>

text \<open>The states of a literal: its inside, behind a backslash, and behind the closing quote.\<close>

locale quoted_states =
  fixes sw :: lex_switch and y :: TSSymbol and q :: codepoint and inside esc fin :: TSStateId
  assumes inside_next: "c \<noteq> 0 \<Longrightarrow> lex_next sw inside c =
      Some (if c = q then fin else if c = CH_BACKSLASH then esc else inside)"
    and esc_next: "c \<noteq> 0 \<Longrightarrow> lex_next sw esc c = Some inside"
    and fin_next: "lex_next sw fin c = None"
    and accepts: "state_accepts sw inside = None" "state_accepts sw esc = None" "state_accepts sw fin = Some y"
    and quote: "q \<noteq> CH_BACKSLASH"
begin

lemma quoted_language:
  "0 \<notin> set w \<Longrightarrow>
     (token_word sw inside y w \<longleftrightarrow> matches (quoted_body q) w) \<and>
     (token_word sw esc y w \<longleftrightarrow> matches (Seq (Alt re_dot (Char CH_LF)) (quoted_body q)) w) \<and>
     (token_word sw fin y w \<longleftrightarrow> w = [])"
proof (induction w)
  case Nil
  then show ?case
    by (simp add: regex_step accepts quoted_body_def)
next
  case (Cons c w)
  then show ?case
    using quote by (auto simp: regex_step inside_next esc_next fin_next quoted_body_def)
qed

end

section \<open>Comments\<close>

text \<open>
  The states of a block comment: \<open>block\<close> in it, \<open>star\<close> behind a star in it, \<open>fin\<close> behind the end.
\<close>

locale block_comment_states =
  fixes sw :: lex_switch and y :: TSSymbol and block star fin :: TSStateId
  assumes block_next: "lex_next sw block c =
      (if c = CH_STAR then Some star else if c \<noteq> 0 then Some block else None)"
    and star_next: "lex_next sw star c =
      (if c = CH_STAR then Some star else if c = CH_SLASH then Some fin else if c \<noteq> 0 then Some block else None)"
    and fin_next: "lex_next sw fin c = None"
    and block_accepting: "state_accepts sw block = None" "state_accepts sw star = None"
      "state_accepts sw fin = Some y"
begin

lemma block_comment_language:
  "0 \<notin> set w \<Longrightarrow>
     (token_word sw block y w \<longleftrightarrow>
        matches (Seq (Star (Class (\<lambda>c. c \<noteq> CH_STAR))) (Seq (Plus (Char CH_STAR)) block_comment_tail)) w) \<and>
     (token_word sw star y w \<longleftrightarrow> matches (Seq (Star (Char CH_STAR)) block_comment_tail) w) \<and>
     (token_word sw fin y w \<longleftrightarrow> w = [])"
proof (induction w)
  case Nil
  then show ?case
    by (simp add: regex_step block_accepting block_comment_tail_def)
next
  case (Cons c w)
  then show ?case
    by (auto simp: regex_step block_next star_next fin_next block_comment_tail_def)
qed

end

text \<open>
  The states of a comment of C: also \<open>line\<close> in a line comment, \<open>esc\<close> behind a backslash, \<open>cr\<close> behind a
  backslash and a carriage return.
\<close>

locale comment_states = block_comment_states +
  fixes line esc cr :: TSStateId
  assumes line_next: "lex_next sw line c =
      (if c = CH_BACKSLASH then Some esc else if c \<noteq> 0 \<and> c \<noteq> CH_LF then Some line else None)"
    and esc_next: "lex_next sw esc c =
      (if c = CH_CR then Some cr else if c \<noteq> 0 then Some line else None)"
    and cr_next: "lex_next sw cr c =
      (if c = CH_BACKSLASH then Some esc else if c \<noteq> 0 then Some line else None)"
    and accepts: "\<And>xs. lex_accepts sw line xs = Some y" "\<And>xs. lex_accepts sw esc xs = None"
      "\<And>xs. lex_accepts sw cr xs = Some y" "\<And>xs. lex_accepts sw block xs = None"
      "\<And>xs. lex_accepts sw star xs = None" "\<And>xs. lex_accepts sw fin xs = Some y"
    and line_accepting: "state_accepts sw line = Some y" "state_accepts sw esc = None" "state_accepts sw cr = Some y"
begin

lemmas comment_next = line_next esc_next cr_next block_next star_next fin_next

lemma line_comment_language:
  "0 \<notin> set w \<Longrightarrow>
     (token_word sw line y w \<longleftrightarrow> matches line_comment_body w) \<and>
     (token_word sw esc y w \<longleftrightarrow>
        matches (Seq (Alt re_dot (Seq (Opt (Char CH_CR)) (Char CH_LF))) line_comment_body) w) \<and>
     (token_word sw cr y w \<longleftrightarrow> matches (Alt line_comment_body (Seq (Char CH_LF) line_comment_body)) w)"
proof (induction w)
  case Nil
  then show ?case
    by (simp add: regex_step line_accepting line_comment_body_def)
next
  case (Cons c w)
  then show ?case
    by (auto simp: regex_step comment_next line_comment_body_def)
qed

text \<open>A state behind a slash, which leads to the two kinds of comment.\<close>

lemma slash_language:
  assumes slash: "\<And>c. lex_next sw s c =
      (if c = CH_STAR then Some block else if c = CH_SLASH then Some line else None)"
    and "state_accepts sw s \<noteq> Some y" and "0 \<notin> set w"
  shows "token_word sw s y w \<longleftrightarrow> matches (deriv CH_SLASH comment_regex) w"
proof (cases w)
  case Nil
  then show ?thesis
    using assms(2) by (simp add: regex_step comment_regex_def line_comment_regex_def block_comment_regex_def)
next
  case (Cons c v)
  with assms(3) show ?thesis
    using line_comment_language [of v] block_comment_language [of v]
    by (auto simp: regex_step slash comment_regex_def line_comment_regex_def block_comment_regex_def)
qed

end

section \<open>Comments in a text\<close>

text \<open>Whether the characters of a closing delimiter occur.\<close>

fun closes_comment :: "codepoint list \<Rightarrow> bool" where
  "closes_comment (c # d # cs) \<longleftrightarrow> c = CH_STAR \<and> d = CH_SLASH \<or> closes_comment (d # cs)"
| "closes_comment _ \<longleftrightarrow> False"

text \<open>
  Where a line comment ends: at the first newline, NUL or end of input that is not escaped. A
  backslash escapes the next character, and a carriage return with its newline.
\<close>

fun line_comment_rest :: "codepoint list \<Rightarrow> codepoint list" where
  "line_comment_rest [] = []"
| "line_comment_rest (c # cs) =
     (if c = 0 \<or> c = CH_LF then c # cs
      else if c \<noteq> CH_BACKSLASH then line_comment_rest cs
      else (case cs of
          [] \<Rightarrow> c # cs
        | d # ds \<Rightarrow>
            (if d = 0 then c # cs
             else if d \<noteq> CH_CR then line_comment_rest ds
             else (case ds of
                 [] \<Rightarrow> []
               | e # es \<Rightarrow> if e = CH_LF then line_comment_rest es else line_comment_rest ds))))"

context comment_states
begin

lemmas comment_munch = better_def accepts comment_next

lemma munch_block:
  "0 \<notin> set body \<Longrightarrow>
     (\<not> closes_comment body \<longrightarrow>
        munch sw block best (body @ CH_STAR # CH_SLASH # rest) = Some (y, rest)) \<and>
     (\<not> closes_comment (CH_STAR # body) \<longrightarrow>
        munch sw star best (body @ CH_STAR # CH_SLASH # rest) = Some (y, rest))"
proof (induction body arbitrary: best)
  case Nil
  have "munch sw fin b rest = Some (y, rest)" for b
    by (cases rest) (simp_all add: comment_munch)
  then show ?case
    by (simp add: comment_munch)
next
  case (Cons c body)
  then show ?case
    by (cases body) (auto simp: comment_munch)
qed

lemma munch_unclosed:
  "0 \<notin> set body \<Longrightarrow>
     (\<not> closes_comment body \<longrightarrow> munch sw block best body = best) \<and>
     (\<not> closes_comment (CH_STAR # body) \<longrightarrow> munch sw star best body = best)"
proof (induction body arbitrary: best)
  case Nil
  then show ?case
    by (simp add: comment_munch)
next
  case (Cons c body)
  then show ?case
    by (cases body) (auto simp: comment_munch)
qed

lemma munch_cr:
  "munch sw cr best w = (case w of [] \<Rightarrow> Some (y, [])
     | e # es \<Rightarrow> if e = CH_LF then munch sw line (Some (y, w)) es else munch sw line best w)"
  by (cases w) (auto simp: comment_munch)

lemma munch_line: "munch sw line best w = Some (y, line_comment_rest w)"
proof (induction w arbitrary: best rule: line_comment_rest.induct)
  case 1
  then show ?case
    by (simp add: comment_munch)
next
  case (2 c cs)
  show ?case
  proof (cases "c = CH_BACKSLASH")
    case False
    then show ?thesis
      using "2.IH"(1) by (cases "c = 0 \<or> c = CH_LF") (auto simp: comment_munch)
  next
    case True
    show ?thesis
    proof (cases cs)
      case Nil
      with True show ?thesis
        by (simp add: comment_munch)
    next
      case (Cons d ds)
      have step: "munch sw line best (c # cs) = munch sw esc (Some (y, c # cs)) (d # ds)"
        using True Cons by (simp add: comment_munch)
      consider "d = 0" | "d \<noteq> 0" "d \<noteq> CH_CR" | "d = CH_CR" "ds = []" | e es where "d = CH_CR" "ds = e # es"
        by (cases ds) auto
      then show ?thesis
      proof cases
        case 1
        with True Cons show ?thesis
          by (simp add: comment_munch)
      next
        case 2
        then have "munch sw esc b (d # ds) = munch sw line b ds" for b
          by (simp add: comment_munch)
        with 2 True Cons step show ?thesis
          using "2.IH"(2) by auto
      next
        case 3
        with True Cons show ?thesis
          by (simp add: comment_munch)
      next
        case 4
        then have "munch sw esc b (d # ds) = munch sw cr b ds" for b
          by (simp add: comment_munch)
        with 4 True Cons step show ?thesis
          using "2.IH"(3,4) by (auto simp: munch_cr simp del: munch.simps)
      qed
    qed
  qed
qed

end

end
