(* ===== verification/Ccomment_Lex.thy ===== *)
theory Ccomment_Lex
  imports C_Tokens
begin

text \<open>
  The generated lexer of the \<^verbatim>\<open>ccomment\<close> grammar: \<^verbatim>\<open>ts_lex\<close> of
  \<^verbatim>\<open>tree-sitter-ccomment/src/parser.c\<close>, one definition per
  \<^verbatim>\<open>case\<close>, and the symbols of its \<^verbatim>\<open>enum ts_symbol_identifiers\<close>.
\<close>

section \<open>Symbols\<close>

abbreviation (input) cc_sym_nothing :: TSSymbol where "cc_sym_nothing \<equiv> 1"
abbreviation (input) cc_sym_preproc_continuation_line :: TSSymbol where "cc_sym_preproc_continuation_line \<equiv> 2"
abbreviation (input) cc_sym_preproc_line :: TSSymbol where "cc_sym_preproc_line \<equiv> 3"
abbreviation (input) cc_aux_sym_define_token1 :: TSSymbol where "cc_aux_sym_define_token1 \<equiv> 4"
abbreviation (input) cc_aux_sym_string_literal_token1 :: TSSymbol where "cc_aux_sym_string_literal_token1 \<equiv> 5"
abbreviation (input) cc_aux_sym_char_literal_token1 :: TSSymbol where "cc_aux_sym_char_literal_token1 \<equiv> 6"
abbreviation (input) cc_sym_comment :: TSSymbol where "cc_sym_comment \<equiv> 7"
abbreviation (input) cc_sym_raw_string_literal :: TSSymbol where "cc_sym_raw_string_literal \<equiv> 8"
abbreviation (input) cc_sym_translation_unit :: TSSymbol where "cc_sym_translation_unit \<equiv> 9"
abbreviation (input) cc_sym__top_level_item :: TSSymbol where "cc_sym__top_level_item \<equiv> 10"
abbreviation (input) cc_sym_define :: TSSymbol where "cc_sym_define \<equiv> 11"
abbreviation (input) cc_sym_string_literal :: TSSymbol where "cc_sym_string_literal \<equiv> 12"
abbreviation (input) cc_sym_char_literal :: TSSymbol where "cc_sym_char_literal \<equiv> 13"
abbreviation (input) cc_aux_sym_translation_unit_repeat1 :: TSSymbol where "cc_aux_sym_translation_unit_repeat1 \<equiv> 14"
abbreviation (input) cc_aux_sym_define_repeat1 :: TSSymbol where "cc_aux_sym_define_repeat1 \<equiv> 15"

section \<open>The cases of the switch\<close>

definition cc_lex_0 :: "bool \<Rightarrow> codepoint \<Rightarrow> lex_case" where
  "cc_lex_0 eof la = (None,
      if eof then ADVANCE 20 else
      if la = CH_DQUOTE then ADVANCE 6 else
      if la = CH_HASH then ADVANCE 23 else
      if la = CH_QUOTE then ADVANCE 7 else
      if la = CH_SLASH then ADVANCE 8 else
      if la = CH_R then ADVANCE 21 else
      if (CH_TAB \<le> la \<and> la \<le> CH_CR) \<or> la = CH_SPACE then ADVANCE 22 else
      if la \<noteq> 0 then ADVANCE 24 else END_STATE)"

definition cc_lex_1 :: "bool \<Rightarrow> codepoint \<Rightarrow> lex_case" where
  "cc_lex_1 eof la = (None,
      if la = CH_LF then ADVANCE 27 else
      if la = CH_BACKSLASH then ADVANCE 2 else
      if (CH_TAB \<le> la \<and> la \<le> CH_CR) \<or> la = CH_SPACE then ADVANCE 1 else
      if la \<noteq> 0 then ADVANCE 4 else END_STATE)"

definition cc_lex_2 :: "bool \<Rightarrow> codepoint \<Rightarrow> lex_case" where
  "cc_lex_2 eof la = (None,
      if la = CH_LF then ADVANCE 25 else
      if la = CH_CR then ADVANCE 3 else
      if la = CH_BACKSLASH then ADVANCE 2 else
      if la \<noteq> 0 then ADVANCE 4 else END_STATE)"

definition cc_lex_3 :: "bool \<Rightarrow> codepoint \<Rightarrow> lex_case" where
  "cc_lex_3 eof la = (None,
      if la = CH_LF then ADVANCE 25 else
      if la = CH_BACKSLASH then ADVANCE 2 else
      if la \<noteq> 0 then ADVANCE 4 else END_STATE)"

definition cc_lex_4 :: "bool \<Rightarrow> codepoint \<Rightarrow> lex_case" where
  "cc_lex_4 eof la = (None,
      if la = CH_LF then ADVANCE 26 else
      if la = CH_BACKSLASH then ADVANCE 2 else
      if la \<noteq> 0 then ADVANCE 4 else END_STATE)"

definition cc_lex_5 :: "bool \<Rightarrow> codepoint \<Rightarrow> lex_case" where
  "cc_lex_5 eof la = (None,
      if la = CH_CR then ADVANCE 33 else
      if la \<noteq> 0 then ADVANCE 32 else END_STATE)"

definition cc_lex_6 :: "bool \<Rightarrow> codepoint \<Rightarrow> lex_case" where
  "cc_lex_6 eof la = (None,
      if la = CH_DQUOTE then ADVANCE 29 else
      if la = CH_BACKSLASH then ADVANCE 18 else
      if la \<noteq> 0 then ADVANCE 6 else END_STATE)"

definition cc_lex_7 :: "bool \<Rightarrow> codepoint \<Rightarrow> lex_case" where
  "cc_lex_7 eof la = (None,
      if la = CH_QUOTE then ADVANCE 30 else
      if la = CH_BACKSLASH then ADVANCE 19 else
      if la \<noteq> 0 then ADVANCE 7 else END_STATE)"

definition cc_lex_8 :: "bool \<Rightarrow> codepoint \<Rightarrow> lex_case" where
  "cc_lex_8 eof la = (None,
      if la = CH_STAR then ADVANCE 10 else
      if la = CH_SLASH then ADVANCE 32 else END_STATE)"

definition cc_lex_9 :: "bool \<Rightarrow> codepoint \<Rightarrow> lex_case" where
  "cc_lex_9 eof la = (None,
      if la = CH_STAR then ADVANCE 9 else
      if la = CH_SLASH then ADVANCE 31 else
      if la \<noteq> 0 then ADVANCE 10 else END_STATE)"

definition cc_lex_10 :: "bool \<Rightarrow> codepoint \<Rightarrow> lex_case" where
  "cc_lex_10 eof la = (None,
      if la = CH_STAR then ADVANCE 9 else
      if la \<noteq> 0 then ADVANCE 10 else END_STATE)"

definition cc_lex_11 :: "bool \<Rightarrow> codepoint \<Rightarrow> lex_case" where
  "cc_lex_11 eof la = (None,
      if la = CH_d then ADVANCE 12 else
      if la = CH_TAB \<or> la = CH_SPACE then ADVANCE 11 else END_STATE)"

definition cc_lex_12 :: "bool \<Rightarrow> codepoint \<Rightarrow> lex_case" where
  "cc_lex_12 eof la = (None,
      if la = CH_e then ADVANCE 14 else END_STATE)"

definition cc_lex_13 :: "bool \<Rightarrow> codepoint \<Rightarrow> lex_case" where
  "cc_lex_13 eof la = (None,
      if la = CH_e then ADVANCE 17 else END_STATE)"

definition cc_lex_14 :: "bool \<Rightarrow> codepoint \<Rightarrow> lex_case" where
  "cc_lex_14 eof la = (None,
      if la = CH_f then ADVANCE 15 else END_STATE)"

definition cc_lex_15 :: "bool \<Rightarrow> codepoint \<Rightarrow> lex_case" where
  "cc_lex_15 eof la = (None,
      if la = CH_i then ADVANCE 16 else END_STATE)"

definition cc_lex_16 :: "bool \<Rightarrow> codepoint \<Rightarrow> lex_case" where
  "cc_lex_16 eof la = (None,
      if la = CH_n then ADVANCE 13 else END_STATE)"

definition cc_lex_17 :: "bool \<Rightarrow> codepoint \<Rightarrow> lex_case" where
  "cc_lex_17 eof la = (None,
      if la = CH_TAB \<or> la = CH_SPACE then ADVANCE 28 else END_STATE)"

definition cc_lex_18 :: "bool \<Rightarrow> codepoint \<Rightarrow> lex_case" where
  "cc_lex_18 eof la = (None,
      if la \<noteq> 0 then ADVANCE 6 else END_STATE)"

definition cc_lex_19 :: "bool \<Rightarrow> codepoint \<Rightarrow> lex_case" where
  "cc_lex_19 eof la = (None,
      if la \<noteq> 0 then ADVANCE 7 else END_STATE)"

definition cc_lex_20 :: "bool \<Rightarrow> codepoint \<Rightarrow> lex_case" where
  "cc_lex_20 eof la = (Some ts_builtin_sym_end, END_STATE)"

definition cc_lex_21 :: "bool \<Rightarrow> codepoint \<Rightarrow> lex_case" where
  "cc_lex_21 eof la = (Some cc_sym_nothing, END_STATE)"

definition cc_lex_22 :: "bool \<Rightarrow> codepoint \<Rightarrow> lex_case" where
  "cc_lex_22 eof la = (Some cc_sym_nothing,
      if la = CH_HASH then ADVANCE 23 else
      if la = CH_R then ADVANCE 21 else
      if (CH_TAB \<le> la \<and> la \<le> CH_CR) \<or> la = CH_SPACE then ADVANCE 22 else
      if la \<noteq> 0 \<and> la \<noteq> CH_DQUOTE \<and> la \<noteq> CH_HASH \<and> la \<noteq>
        CH_QUOTE \<and> la \<noteq> CH_SLASH then ADVANCE 24 else END_STATE)"

definition cc_lex_23 :: "bool \<Rightarrow> codepoint \<Rightarrow> lex_case" where
  "cc_lex_23 eof la = (Some cc_sym_nothing,
      if la = CH_d then ADVANCE 12 else
      if la = CH_TAB \<or> la = CH_SPACE then ADVANCE 11 else END_STATE)"

definition cc_lex_24 :: "bool \<Rightarrow> codepoint \<Rightarrow> lex_case" where
  "cc_lex_24 eof la = (Some cc_sym_nothing,
      if la \<noteq> 0 \<and> la \<noteq> CH_DQUOTE \<and> la \<noteq> CH_HASH \<and> la \<noteq>
        CH_QUOTE \<and> la \<noteq> CH_SLASH \<and> la \<noteq> CH_R then ADVANCE 24 else
        END_STATE)"

definition cc_lex_25 :: "bool \<Rightarrow> codepoint \<Rightarrow> lex_case" where
  "cc_lex_25 eof la = (Some cc_sym_preproc_continuation_line, END_STATE)"

definition cc_lex_26 :: "bool \<Rightarrow> codepoint \<Rightarrow> lex_case" where
  "cc_lex_26 eof la = (Some cc_sym_preproc_line, END_STATE)"

definition cc_lex_27 :: "bool \<Rightarrow> codepoint \<Rightarrow> lex_case" where
  "cc_lex_27 eof la = (Some cc_sym_preproc_line,
      if la = CH_LF then ADVANCE 27 else
      if la = CH_BACKSLASH then ADVANCE 2 else
      if (CH_TAB \<le> la \<and> la \<le> CH_CR) \<or> la = CH_SPACE then ADVANCE 1 else
      if la \<noteq> 0 then ADVANCE 4 else END_STATE)"

definition cc_lex_28 :: "bool \<Rightarrow> codepoint \<Rightarrow> lex_case" where
  "cc_lex_28 eof la = (Some cc_aux_sym_define_token1,
      if la = CH_TAB \<or> la = CH_SPACE then ADVANCE 28 else END_STATE)"

definition cc_lex_29 :: "bool \<Rightarrow> codepoint \<Rightarrow> lex_case" where
  "cc_lex_29 eof la = (Some cc_aux_sym_string_literal_token1, END_STATE)"

definition cc_lex_30 :: "bool \<Rightarrow> codepoint \<Rightarrow> lex_case" where
  "cc_lex_30 eof la = (Some cc_aux_sym_char_literal_token1, END_STATE)"

definition cc_lex_31 :: "bool \<Rightarrow> codepoint \<Rightarrow> lex_case" where
  "cc_lex_31 eof la = (Some cc_sym_comment, END_STATE)"

definition cc_lex_32 :: "bool \<Rightarrow> codepoint \<Rightarrow> lex_case" where
  "cc_lex_32 eof la = (Some cc_sym_comment,
      if la = CH_BACKSLASH then ADVANCE 5 else
      if la \<noteq> 0 \<and> la \<noteq> CH_LF then ADVANCE 32 else END_STATE)"

definition cc_lex_33 :: "bool \<Rightarrow> codepoint \<Rightarrow> lex_case" where
  "cc_lex_33 eof la = (Some cc_sym_comment,
      if la = CH_BACKSLASH then ADVANCE 5 else
      if la \<noteq> 0 then ADVANCE 32 else END_STATE)"

section \<open>The switch\<close>

definition cc_lex_cases :: "(bool \<Rightarrow> codepoint \<Rightarrow> lex_case) list" where
  "cc_lex_cases = [cc_lex_0, cc_lex_1, cc_lex_2, cc_lex_3, cc_lex_4, cc_lex_5, cc_lex_6,
    cc_lex_7, cc_lex_8, cc_lex_9, cc_lex_10, cc_lex_11, cc_lex_12, cc_lex_13, cc_lex_14,
    cc_lex_15, cc_lex_16, cc_lex_17, cc_lex_18, cc_lex_19, cc_lex_20, cc_lex_21, cc_lex_22,
    cc_lex_23, cc_lex_24, cc_lex_25, cc_lex_26, cc_lex_27, cc_lex_28, cc_lex_29, cc_lex_30,
    cc_lex_31, cc_lex_32, cc_lex_33]"

definition cc_ts_lex :: lex_switch where
  "cc_ts_lex state eof la =
     (if state < 34 then Some ((cc_lex_cases ! state) eof la) else None)"

lemmas cc_lex_defs =
  cc_lex_0_def cc_lex_1_def cc_lex_2_def cc_lex_3_def cc_lex_4_def cc_lex_5_def cc_lex_6_def
    cc_lex_7_def cc_lex_8_def cc_lex_9_def cc_lex_10_def cc_lex_11_def cc_lex_12_def
    cc_lex_13_def cc_lex_14_def cc_lex_15_def cc_lex_16_def cc_lex_17_def cc_lex_18_def
    cc_lex_19_def cc_lex_20_def cc_lex_21_def cc_lex_22_def cc_lex_23_def cc_lex_24_def
    cc_lex_25_def cc_lex_26_def cc_lex_27_def cc_lex_28_def cc_lex_29_def cc_lex_30_def
    cc_lex_31_def cc_lex_32_def cc_lex_33_def
section \<open>The switch is closed\<close>

text \<open>Every jump of the switch goes to one of its cases, and the jump at the end of input is the last.\<close>

interpretation cc_switch: case_switch cc_ts_lex 34 cc_lex_cases
proof
  show "cc_ts_lex s e c = (if s < 34 then Some ((cc_lex_cases ! s) e c) else None)" for s e c
    by (rule cc_ts_lex_def)
  show "length cc_lex_cases = 34"
    by (simp add: cc_lex_cases_def)
  show "list_all (\<lambda>f. \<forall>e c. goto_bounded 34 (snd (f e c))) cc_lex_cases"
    by (simp add: cc_lex_cases_def cc_lex_defs)
  show "list_all (eof_stop cc_lex_cases) cc_lex_cases"
    by (simp add: cc_lex_cases_def cc_lex_defs eof_stop_def)
qed

text \<open>The steps and the accepting states of the automaton, by evaluation of the cases.\<close>

lemmas cc_auto = cc_switch.next_eq cc_switch.state_accepts_eq cc_lex_cases_def

section \<open>Tokens against the grammar\<close>

interpretation cc_comment: comment_states cc_ts_lex cc_sym_comment 10 9 31 32 5 33
proof
  fix xs :: "codepoint list"
  show "lex_accepts cc_ts_lex 32 xs = Some cc_sym_comment" "lex_accepts cc_ts_lex 5 xs = None"
    "lex_accepts cc_ts_lex 33 xs = Some cc_sym_comment" "lex_accepts cc_ts_lex 10 xs = None"
    "lex_accepts cc_ts_lex 9 xs = None" "lex_accepts cc_ts_lex 31 xs = Some cc_sym_comment"
    by (cases xs; simp add: cc_switch.switch_eval cc_lex_cases_def cc_lex_defs)+
qed (simp_all add: cc_auto cc_lex_defs)

interpretation cc_string: quoted_states cc_ts_lex cc_aux_sym_string_literal_token1 CH_DQUOTE 6 18 29
  by unfold_locales (simp_all add: cc_auto cc_lex_defs)

interpretation cc_char: quoted_states cc_ts_lex cc_aux_sym_char_literal_token1 CH_QUOTE 7 19 30
  by unfold_locales (simp_all add: cc_auto cc_lex_defs)

text \<open>
  The directive keyword and the catch-all token of \<^verbatim>\<open>tree-sitter-ccomment/grammar.js\<close>;
  the other patterns are those of \<^theory_text>\<open>C_Tokens\<close>.
\<close>

definition cc_define_regex :: regex where
  "cc_define_regex = Seq (Char CH_HASH)
     (Seq (Star re_space) (Seq (Word [CH_d, CH_e, CH_f, CH_i, CH_n, CH_e]) (Plus re_space)))"

text \<open>
  The directive's states, in the order of the word; 23 is the state after the hash sign.
\<close>

lemma cc_define_states:
  fixes ws :: regex
  defines "ws \<equiv> re_space"
  shows "0 \<notin> set w \<Longrightarrow>
     (token_word cc_ts_lex 28 cc_aux_sym_define_token1 w \<longleftrightarrow> matches (Star ws) w) \<and>
     (token_word cc_ts_lex 17 cc_aux_sym_define_token1 w \<longleftrightarrow> matches (Plus ws) w) \<and>
     (token_word cc_ts_lex 13 cc_aux_sym_define_token1 w \<longleftrightarrow>
        matches (Seq (Word [CH_e]) (Plus ws)) w) \<and>
     (token_word cc_ts_lex 16 cc_aux_sym_define_token1 w \<longleftrightarrow>
        matches (Seq (Word [CH_n, CH_e]) (Plus ws)) w) \<and>
     (token_word cc_ts_lex 15 cc_aux_sym_define_token1 w \<longleftrightarrow>
        matches (Seq (Word [CH_i, CH_n, CH_e]) (Plus ws)) w) \<and>
     (token_word cc_ts_lex 14 cc_aux_sym_define_token1 w \<longleftrightarrow>
        matches (Seq (Word [CH_f, CH_i, CH_n, CH_e]) (Plus ws)) w) \<and>
     (token_word cc_ts_lex 12 cc_aux_sym_define_token1 w \<longleftrightarrow>
        matches (Seq (Word [CH_e, CH_f, CH_i, CH_n, CH_e]) (Plus ws)) w) \<and>
     (token_word cc_ts_lex 11 cc_aux_sym_define_token1 w \<longleftrightarrow>
        matches (Seq (Star ws) (Seq (Word [CH_d, CH_e, CH_f, CH_i, CH_n, CH_e]) (Plus ws))) w) \<and>
     (token_word cc_ts_lex 23 cc_aux_sym_define_token1 w \<longleftrightarrow>
        matches (Seq (Star ws) (Seq (Word [CH_d, CH_e, CH_f, CH_i, CH_n, CH_e]) (Plus ws))) w)"
  unfolding ws_def
proof (induction w)
  case Nil
  then show ?case
    by (simp add: regex_step cc_auto cc_lex_defs)
next
  case (Cons c w)
  then show ?case
    by (auto simp: regex_step cc_auto cc_lex_defs)
qed

text \<open>States from which a token cannot be reached.\<close>

lemma cc_avoid:
  assumes "list_all (\<lambda>s. s < 34) S" and "avoids cc_lex_cases S y" and "s \<in> set S"
  shows "\<not> token_word cc_ts_lex s y w"
  using cc_switch.avoids_token_word assms by blast

lemma cc_avoid_comment:
  "s \<in> set [20, 6, 18, 29, 7, 19, 30, 21, 22, 23, 24, 11, 12, 13, 14, 15, 16, 17, 28] \<Longrightarrow>
   \<not> token_word cc_ts_lex s cc_sym_comment w"
  by (rule cc_avoid [where S = "[20, 6, 18, 29, 7, 19, 30, 21, 22, 23, 24, 11, 12, 13, 14, 15, 16, 17, 28]"])
    (simp_all add: avoids_def cc_lex_cases_def cc_lex_defs)

lemma cc_avoid_string:
  "s \<in> set [20, 7, 19, 30, 8, 9, 10, 31, 32, 5, 33, 21, 22, 23, 24, 11, 12, 13, 14, 15, 16, 17, 28] \<Longrightarrow>
   \<not> token_word cc_ts_lex s cc_aux_sym_string_literal_token1 w"
  by (rule cc_avoid [where S = "[20, 7, 19, 30, 8, 9, 10, 31, 32, 5, 33, 21, 22, 23, 24, 11, 12, 13, 14, 15, 16, 17, 28]"])
    (simp_all add: avoids_def cc_lex_cases_def cc_lex_defs)

lemma cc_avoid_char:
  "s \<in> set [20, 6, 18, 29, 8, 9, 10, 31, 32, 5, 33, 21, 22, 23, 24, 11, 12, 13, 14, 15, 16, 17, 28] \<Longrightarrow>
   \<not> token_word cc_ts_lex s cc_aux_sym_char_literal_token1 w"
  by (rule cc_avoid [where S = "[20, 6, 18, 29, 8, 9, 10, 31, 32, 5, 33, 21, 22, 23, 24, 11, 12, 13, 14, 15, 16, 17, 28]"])
    (simp_all add: avoids_def cc_lex_cases_def cc_lex_defs)

lemma cc_avoid_define:
  "s \<in> set [20, 6, 18, 29, 7, 19, 30, 8, 9, 10, 31, 32, 5, 33, 21, 24] \<Longrightarrow>
   \<not> token_word cc_ts_lex s cc_aux_sym_define_token1 w"
  by (rule cc_avoid [where S = "[20, 6, 18, 29, 7, 19, 30, 8, 9, 10, 31, 32, 5, 33, 21, 24]"])
    (simp_all add: avoids_def cc_lex_cases_def cc_lex_defs)

lemma cc_slash_state:
  "0 \<notin> set w \<Longrightarrow> token_word cc_ts_lex 8 cc_sym_comment w \<longleftrightarrow> matches (deriv CH_SLASH comment_regex) w"
  by (rule cc_comment.slash_language) (simp_all add: cc_auto cc_lex_defs)

lemma cc_start_cases:
  "token_word cc_ts_lex 0 y (c # w) \<longleftrightarrow>
     (if c = CH_DQUOTE then token_word cc_ts_lex 6 y w
      else if c = CH_HASH then token_word cc_ts_lex 23 y w
      else if c = CH_QUOTE then token_word cc_ts_lex 7 y w
      else if c = CH_SLASH then token_word cc_ts_lex 8 y w
      else if c = CH_R then token_word cc_ts_lex 21 y w
      else if CH_TAB \<le> c \<and> c \<le> CH_CR \<or> c = CH_SPACE then token_word cc_ts_lex 22 y w
      else c \<noteq> 0 \<and> token_word cc_ts_lex 24 y w)"
  by (simp add: token_word_Cons cc_auto cc_lex_defs)

lemma cc_comment_language:
  "0 \<notin> set w \<Longrightarrow> token_word cc_ts_lex 0 cc_sym_comment w \<longleftrightarrow> matches comment_regex w"
proof (cases w)
  case Nil
  then show ?thesis
    by (simp add: regex_step cc_auto cc_lex_defs comment_regex_def line_comment_regex_def
        block_comment_regex_def)
next
  case (Cons c v)
  assume nul: "0 \<notin> set w"
  show ?thesis
  proof (cases "c = CH_SLASH")
    case True
    with nul Cons show ?thesis
      using cc_slash_state [of v] by (simp add: cc_start_cases matches_Cons)
  next
    case False
    then have "\<not> matches comment_regex w"
      using Cons by (simp add: matches_Cons comment_regex_def line_comment_regex_def
          block_comment_regex_def)
    with False Cons show ?thesis
      by (simp add: cc_start_cases cc_avoid_comment)
  qed
qed

lemma cc_string_language:
  "0 \<notin> set w \<Longrightarrow>
   token_word cc_ts_lex 0 cc_aux_sym_string_literal_token1 w \<longleftrightarrow> matches string_regex w"
  using cc_string.quoted_language [of "tl w"]
  by (cases w) (auto simp: cc_start_cases cc_avoid_string string_regex_def matches_Nil matches_Cons
      token_word_Nil cc_switch.state_accepts_eq cc_lex_cases_def cc_lex_0_def)

lemma cc_char_language:
  "0 \<notin> set w \<Longrightarrow>
   token_word cc_ts_lex 0 cc_aux_sym_char_literal_token1 w \<longleftrightarrow> matches char_regex w"
  using cc_char.quoted_language [of "tl w"]
  by (cases w) (auto simp: cc_start_cases cc_avoid_char char_regex_def matches_Nil matches_Cons
      token_word_Nil cc_switch.state_accepts_eq cc_lex_cases_def cc_lex_0_def)

text \<open>
  Whitespace may precede a directive: blanks are extras of the grammar, and the lexer reads them
  as part of the token.
\<close>

lemma cc_blank_define:
  "0 \<notin> set w \<Longrightarrow> token_word cc_ts_lex 22 cc_aux_sym_define_token1 w \<longleftrightarrow>
     matches (Seq (Star re_blank) cc_define_regex) w"
proof (induction w)
  case Nil
  then show ?case
    by (simp add: regex_step cc_auto cc_lex_defs cc_define_regex_def)
next
  case (Cons c w)
  then show ?case
    using cc_define_states [of w]
    by (auto simp: regex_step cc_auto cc_lex_defs cc_define_regex_def cc_avoid_define)
qed

lemma cc_define_language:
  "0 \<notin> set w \<Longrightarrow>
   token_word cc_ts_lex 0 cc_aux_sym_define_token1 w \<longleftrightarrow>
     matches (Seq (Star re_blank) cc_define_regex) w"
  using cc_define_states [of "tl w"] cc_blank_define [of "tl w"]
  by (cases w) (auto simp: cc_start_cases cc_avoid_define cc_define_regex_def matches_Nil matches_Cons
      token_word_Nil cc_switch.state_accepts_eq cc_lex_cases_def cc_lex_0_def)

definition cc_nothing_regex :: regex where
  "cc_nothing_regex =
     Alt (Plus (Class (\<lambda>c. c \<noteq> CH_R \<and> c \<noteq> CH_DQUOTE \<and> c \<noteq> CH_QUOTE \<and> c \<noteq> CH_SLASH \<and> c \<noteq> CH_HASH)))
       (Alt (Char CH_R) (Char CH_HASH))"

lemma cc_avoid_nothing:
  "s \<in> set [20, 6, 18, 29, 7, 19, 30, 8, 9, 10, 31, 32, 5, 33, 11, 12, 13, 14, 15, 16, 17, 28] \<Longrightarrow>
   \<not> token_word cc_ts_lex s cc_sym_nothing w"
  by (rule cc_avoid [where S = "[20, 6, 18, 29, 7, 19, 30, 8, 9, 10, 31, 32, 5, 33, 11, 12, 13, 14, 15, 16, 17, 28]"])
    (simp_all add: avoids_def cc_lex_cases_def cc_lex_defs)

lemma cc_hash_R_nothing:
  "token_word cc_ts_lex 23 cc_sym_nothing w \<longleftrightarrow> w = []"
  "token_word cc_ts_lex 21 cc_sym_nothing w \<longleftrightarrow> w = []"
  by (cases w; simp add: token_word_Nil token_word_Cons cc_auto cc_lex_defs cc_avoid_nothing del: One_nat_def)+

lemma cc_nothing_states:
  fixes chars :: regex
  defines "chars \<equiv> Class (\<lambda>c. c \<noteq> CH_R \<and> c \<noteq> CH_DQUOTE \<and> c \<noteq> CH_QUOTE \<and> c \<noteq> CH_SLASH \<and> c \<noteq> CH_HASH)"
  shows "0 \<notin> set w \<Longrightarrow>
     (token_word cc_ts_lex 24 cc_sym_nothing w \<longleftrightarrow> matches (Star chars) w) \<and>
     (token_word cc_ts_lex 22 cc_sym_nothing w \<longleftrightarrow>
        matches (Alt (Star chars) (Seq (Star re_blank) (Alt (Char CH_R) (Char CH_HASH)))) w)"
  unfolding chars_def
proof (induction w)
  case Nil
  then show ?case
    by (simp add: regex_step cc_auto cc_lex_defs)
next
  case (Cons c w)
  then show ?case
    by (auto simp: regex_step cc_auto cc_lex_defs cc_hash_R_nothing simp del: One_nat_def)
qed

text \<open>The same extras: a hash sign or an R that starts no longer token may have blanks before it.\<close>

lemma cc_nothing_language:
  "0 \<notin> set w \<Longrightarrow>
   token_word cc_ts_lex 0 cc_sym_nothing w \<longleftrightarrow>
     matches (Alt cc_nothing_regex (Seq (Star re_blank) (Alt (Char CH_R) (Char CH_HASH)))) w"
proof (cases w)
  case Nil
  then show ?thesis
    by (simp add: token_word_Nil cc_switch.state_accepts_eq cc_lex_cases_def cc_lex_0_def cc_nothing_regex_def
        matches_Nil Plus_def)
next
  case (Cons c v)
  assume "0 \<notin> set w"
  with Cons show ?thesis
    using cc_nothing_states [of v]
    by (auto simp: cc_start_cases cc_avoid_nothing cc_hash_R_nothing cc_nothing_regex_def matches_Cons
        Plus_def simp del: One_nat_def)
qed

text \<open>Blanks are characters of the token themselves, so they only matter before a hash sign or an R.\<close>

lemma cc_blank_nothing:
  "matches (Seq (Star re_blank) cc_nothing_regex) w \<longleftrightarrow>
     matches (Alt cc_nothing_regex (Seq (Star re_blank) (Alt (Char CH_R) (Char CH_HASH)))) w"
proof -
  let ?chars = "Class (\<lambda>c. c \<noteq> CH_R \<and> c \<noteq> CH_DQUOTE \<and> c \<noteq> CH_QUOTE \<and> c \<noteq> CH_SLASH \<and> c \<noteq> CH_HASH)"
  have plus: "matches (Seq (Star re_blank) (Plus ?chars)) w \<longleftrightarrow> matches (Plus ?chars) w" for w
  proof
    assume "matches (Seq (Star re_blank) (Plus ?chars)) w"
    then obtain u v where "w = u @ v" "matches (Star re_blank) u" "matches (Plus ?chars) v"
      unfolding matches_Seq by blast
    then show "matches (Plus ?chars) w"
      unfolding matches_Star_Class matches_Plus_Class by auto
  qed (subst matches_Seq_Star, blast)
  have alt: "matches (Seq r (Alt a b)) w \<longleftrightarrow> matches (Seq r a) w \<or> matches (Seq r b) w" for r a b w
    by (auto simp: matches_Seq)
  have "matches q w \<Longrightarrow> matches (Seq (Star re_blank) q) w" for q
    by (subst matches_Seq_Star) blast
  from this [of "Char CH_R"] this [of "Char CH_HASH"] show ?thesis
    unfolding cc_nothing_regex_def matches_Alt alt plus by argo
qed

section \<open>Directive lines\<close>

text \<open>
  Lex state 1 reads the rest of a directive. Its two tokens overlap, and the longer match or, on
  equal length, the continuation line wins: a line ending in a backslash is a continuation.
\<close>

definition cc_line_regex :: regex where
  "cc_line_regex = Seq (Star re_dot) (Char CH_LF)"

lemma cc_directive_states:
  fixes eol :: regex
  defines "eol \<equiv> Seq (Opt (Char CH_CR)) (Char CH_LF)"
  shows "0 \<notin> set w \<Longrightarrow>
     (token_word cc_ts_lex 4 cc_sym_preproc_continuation_line w \<longleftrightarrow> matches continuation_regex w) \<and>
     (token_word cc_ts_lex 4 cc_sym_preproc_line w \<longleftrightarrow>
        matches cc_line_regex w \<and> \<not> matches continuation_regex w) \<and>
     (token_word cc_ts_lex 2 cc_sym_preproc_continuation_line w \<longleftrightarrow>
        matches (Alt continuation_regex eol) w) \<and>
     (token_word cc_ts_lex 2 cc_sym_preproc_line w \<longleftrightarrow>
        matches cc_line_regex w \<and> \<not> matches (Alt continuation_regex eol) w) \<and>
     (token_word cc_ts_lex 3 cc_sym_preproc_continuation_line w \<longleftrightarrow>
        matches (Alt continuation_regex (Char CH_LF)) w) \<and>
     (token_word cc_ts_lex 3 cc_sym_preproc_line w \<longleftrightarrow>
        matches cc_line_regex w \<and> \<not> matches (Alt continuation_regex (Char CH_LF)) w) \<and>
     (token_word cc_ts_lex 25 cc_sym_preproc_continuation_line w \<longleftrightarrow> w = []) \<and>
     (\<not> token_word cc_ts_lex 25 cc_sym_preproc_line w) \<and>
     (token_word cc_ts_lex 26 cc_sym_preproc_line w \<longleftrightarrow> w = []) \<and>
     (\<not> token_word cc_ts_lex 26 cc_sym_preproc_continuation_line w)"
  unfolding eol_def
proof (induction w)
  case Nil
  then show ?case
    by (simp add: regex_step cc_auto cc_lex_defs continuation_regex_def cc_line_regex_def)
next
  case (Cons c w)
  have nul: "0 \<notin> set w" "c \<noteq> 0"
    using Cons.prems by auto
  note IH = Cons.IH [OF nul(1)]
  show ?case
    using IH nul(2)
    by (simp add: regex_step cc_auto cc_lex_defs continuation_regex_def cc_line_regex_def)
qed

lemmas directive_step =
  regex_step cc_auto cc_lex_1_def cc_lex_27_def continuation_regex_def cc_line_regex_def

lemma cc_directive_start:
  "0 \<notin> set w \<Longrightarrow>
     (token_word cc_ts_lex 1 cc_sym_preproc_continuation_line w \<longleftrightarrow>
        matches (Seq (Star re_blank) continuation_regex) w) \<and>
     (token_word cc_ts_lex 1 cc_sym_preproc_line w \<longleftrightarrow>
        matches (Seq (Star re_blank) cc_line_regex) w \<and>
        \<not> matches (Seq (Star re_blank) continuation_regex) w) \<and>
     (token_word cc_ts_lex 27 cc_sym_preproc_continuation_line w \<longleftrightarrow>
        matches (Seq (Star re_blank) continuation_regex) w) \<and>
     (token_word cc_ts_lex 27 cc_sym_preproc_line w \<longleftrightarrow> w = [] \<or>
        matches (Seq (Star re_blank) cc_line_regex) w \<and>
        \<not> matches (Seq (Star re_blank) continuation_regex) w)"
proof (induction w)
  case Nil
  then show ?case
    by (simp add: regex_step cc_auto cc_lex_defs continuation_regex_def cc_line_regex_def)
next
  case (Cons c w)
  have nul: "0 \<notin> set w" "c \<noteq> 0"
    using Cons.prems by auto
  note IH = Cons.IH [OF nul(1)] cc_directive_states [OF nul(1)]
  consider "c = CH_LF" | "c = CH_BACKSLASH" | "c \<noteq> CH_LF" "CH_TAB \<le> c \<and> c \<le> CH_CR \<or> c = CH_SPACE"
    | "c \<noteq> CH_LF" "c \<noteq> CH_BACKSLASH" "\<not> (CH_TAB \<le> c \<and> c \<le> CH_CR \<or> c = CH_SPACE)"
    by blast
  then show ?case
  proof cases
    case 1
    then show ?thesis
      using IH by (cases "w = []") (simp_all add: directive_step)
  next
    case 2
    then show ?thesis
      using IH by (simp add: directive_step)
  next
    case 3
    then have "c \<noteq> CH_BACKSLASH" by auto
    with 3 show ?thesis
      using IH nul(2) by (simp add: directive_step)
  next
    case 4
    then have "c < CH_TAB \<or> CH_CR < c" "c \<noteq> CH_SPACE" by auto
    with 4 show ?thesis
      using IH nul(2) by (elim disjE) (simp_all add: directive_step)
  qed
qed

end
