(* ===== verification/Ccomment_Text.thy ===== *)
theory Ccomment_Text
  imports Ccomment_Lex
begin

text \<open>
  What the \<^verbatim>\<open>ccomment\<close> lexer does to a text: the token it returns and where it ends,
  for any runtime that meets the contract of \<^theory_text>\<open>text_runtime\<close>.
\<close>

interpretation cc_cursor: lexer_on_text cursor_runtime cur_ahead cur_marked cc_ts_lex 34
  by (rule lexer_on_text.intro [OF cursor_text_runtime cc_switch.closed_switch_axioms])

lemma cc_on_text:
  "text_runtime R ahead marked \<Longrightarrow> lexer_on_text R ahead marked cc_ts_lex 34"
  by (rule lexer_on_text.intro [OF _ cc_switch.closed_switch_axioms])

lemmas cc_lex_fn_token = lexer_on_text.lex_fn_token [OF cc_on_text]
lemmas cc_lex_fn_no_token = lexer_on_text.lex_fn_no_token [OF cc_on_text]

lemmas cc_munch_eval =
  better_def cc_switch.switch_eval cc_lex_cases_def cc_lex_defs

section \<open>The tokens of a lex state\<close>

text \<open>Lex state 0 has the tokens an item starts with, lex state 1 those of the rest of a directive.\<close>

lemma cc_item_tokens:
  "{y. token_word cc_ts_lex 0 y w} \<subseteq>
     {cc_sym_nothing, cc_sym_comment, cc_aux_sym_string_literal_token1, cc_aux_sym_char_literal_token1,
      cc_aux_sym_define_token1}"
proof -
  have "\<not> token_word cc_ts_lex 0 y w" if "y \<notin> {1, 4, 5, 6, 7}" for y
  proof (cases w)
    case (Cons c v)
    let ?S = "[5, 6, 7, 8, 9, 10, 11, 12, 13, 14, 15, 16, 17, 18, 19, 21, 22, 23, 24, 28, 29, 30, 31, 32, 33]"
    have "1 \<noteq> y" "4 \<noteq> y" "5 \<noteq> y" "6 \<noteq> y" "7 \<noteq> y"
      using that by auto
    then have "\<not> token_word cc_ts_lex s y v" if "s \<in> set ?S" for s
      by (intro cc_avoid [OF _ _ that]) (simp_all add: avoids_def cc_lex_cases_def cc_lex_defs)
    then show ?thesis
      by (simp add: Cons cc_start_cases)
  qed (simp add: token_word_Nil cc_auto cc_lex_0_def)
  then show ?thesis
    by blast
qed

lemma cc_directive_tokens:
  "{y. token_word cc_ts_lex 1 y w} \<subseteq> {cc_sym_preproc_continuation_line, cc_sym_preproc_line}"
proof -
  have "\<not> token_word cc_ts_lex 1 y w" if "y \<notin> {2, 3}" for y
  proof -
    have "2 \<noteq> y" "3 \<noteq> y"
      using that by auto
    then show ?thesis
      by (intro cc_avoid [where S = "[1, 2, 3, 4, 25, 26, 27]"])
        (simp_all add: avoids_def cc_lex_cases_def cc_lex_defs)
  qed
  then show ?thesis
    by blast
qed

section \<open>Properties\<close>

text \<open>
  Property C20. The seven tokens of the comment lexer and the words of each, on words without NUL. In lex
  state 0, where an item starts, these are comments, string and character literals, each exactly the language
  of its pattern in \<^verbatim>\<open>grammar.js\<close>, and the directive keyword and the catch-all token, each its
  pattern with the blanks, extras of the grammar, before it. In lex state 1, in a directive, they are the continuation
  line and the final line. The patterns of these two overlap and the continuation line has
  precedence: the final line is what its own pattern matches and the other does not. No state has a token
  of the other.
\<close>

theorem cc_token_languages:
  assumes "0 \<notin> set w"
  shows "(token_word cc_ts_lex 0 cc_sym_comment w \<longleftrightarrow> matches comment_regex w) \<and>
    (token_word cc_ts_lex 0 cc_aux_sym_string_literal_token1 w \<longleftrightarrow> matches string_regex w) \<and>
    (token_word cc_ts_lex 0 cc_aux_sym_char_literal_token1 w \<longleftrightarrow> matches char_regex w) \<and>
    (token_word cc_ts_lex 0 cc_aux_sym_define_token1 w \<longleftrightarrow> matches (Seq (Star re_blank) cc_define_regex) w) \<and>
    (token_word cc_ts_lex 0 cc_sym_nothing w \<longleftrightarrow> matches (Seq (Star re_blank) cc_nothing_regex) w) \<and>
    (token_word cc_ts_lex 1 cc_sym_preproc_continuation_line w \<longleftrightarrow>
       matches (Seq (Star re_blank) continuation_regex) w) \<and>
    (token_word cc_ts_lex 1 cc_sym_preproc_line w \<longleftrightarrow>
       matches (Seq (Star re_blank) cc_line_regex) w \<and> \<not> matches (Seq (Star re_blank) continuation_regex) w) \<and>
    {y. token_word cc_ts_lex 0 y w} \<subseteq>
      {cc_sym_nothing, cc_sym_comment, cc_aux_sym_string_literal_token1, cc_aux_sym_char_literal_token1,
       cc_aux_sym_define_token1} \<and>
    {y. token_word cc_ts_lex 1 y w} \<subseteq> {cc_sym_preproc_continuation_line, cc_sym_preproc_line}"
  using cc_comment_language [OF assms] cc_string_language [OF assms] cc_char_language [OF assms]
    cc_define_language [OF assms] cc_nothing_language [OF assms] cc_blank_nothing cc_directive_start [OF assms]
    cc_item_tokens cc_directive_tokens by simp

theorem cc_token_languages_witness:
  "token_word cc_ts_lex 0 cc_sym_comment [CH_SLASH, CH_STAR, CH_STAR, CH_SLASH] \<and>
   matches comment_regex [CH_SLASH, CH_STAR, CH_STAR, CH_SLASH]"
proof -
  have "token_word cc_ts_lex 0 cc_sym_comment [CH_SLASH, CH_STAR, CH_STAR, CH_SLASH]"
    by (simp add: regex_step cc_auto cc_lex_defs)
  then show ?thesis
    using cc_token_languages [of "[CH_SLASH, CH_STAR, CH_STAR, CH_SLASH]"] by simp
qed

text \<open>
  A block comment is one token that ends at its first closing delimiter, whatever
  follows; a block comment that is never closed is no token at all.
\<close>

theorem cc_block_comment_token:
  assumes rt: "text_runtime R ahead marked" and nul: "0 \<notin> set body" and open_: "\<not> closes_comment body"
  shows "(ahead (rt_state L) = CH_SLASH # CH_STAR # body @ CH_STAR # CH_SLASH # rest \<longrightarrow>
      (\<exists>L'. lex_fn R cc_ts_lex 0 L = Some (True, L') \<and> result_symbol L' = cc_sym_comment \<and>
        marked (rt_state L') = rest)) \<and>
    (ahead (rt_state L) = CH_SLASH # CH_STAR # body \<longrightarrow>
      (\<exists>L'. lex_fn R cc_ts_lex 0 L = Some (False, L')))"
proof (intro conjI impI)
  have start: "munch cc_ts_lex 0 None (CH_SLASH # CH_STAR # cs) = munch cc_ts_lex 10 None cs" for cs
    by (simp add: cc_munch_eval)
  show "\<exists>L'. lex_fn R cc_ts_lex 0 L = Some (True, L') \<and> result_symbol L' = cc_sym_comment \<and>
        marked (rt_state L') = rest"
    if "ahead (rt_state L) = CH_SLASH # CH_STAR # body @ CH_STAR # CH_SLASH # rest"
    by (rule cc_lex_fn_token [OF rt]) (use cc_comment.munch_block [OF nul] open_ start that in auto)
  show "\<exists>L'. lex_fn R cc_ts_lex 0 L = Some (False, L')"
    if "ahead (rt_state L) = CH_SLASH # CH_STAR # body"
    by (rule cc_lex_fn_no_token [OF rt]) (use cc_comment.munch_unclosed [OF nul] open_ start that in auto)
qed

theorem cc_block_comment_token_witness:
  "\<exists>L'. lex_fn cursor_runtime cc_ts_lex 0
      (text_lexer [CH_SLASH, CH_STAR, CH_STAR, CH_a, CH_STAR, CH_SLASH, CH_STAR, CH_SLASH]) = Some (True, L') \<and>
    result_symbol L' = cc_sym_comment \<and> cur_marked (rt_state L') = [CH_STAR, CH_SLASH]"
  using cc_block_comment_token [OF cursor_text_runtime, of "[CH_STAR, CH_a]"
      "text_lexer [CH_SLASH, CH_STAR, CH_STAR, CH_a, CH_STAR, CH_SLASH, CH_STAR, CH_SLASH]" "[CH_STAR, CH_SLASH]"]
  by (simp add: text_lexer_ahead)

text \<open>
  A line comment is one token that runs to the first newline (NUL, end of input) that
  is not escaped by a backslash; an escaped line ending, with or without a carriage return, is
  part of it.
\<close>

theorem cc_line_comment_token:
  assumes "text_runtime R ahead marked" and "ahead (rt_state L) = CH_SLASH # CH_SLASH # w"
  shows "\<exists>L'. lex_fn R cc_ts_lex 0 L = Some (True, L') \<and> result_symbol L' = cc_sym_comment \<and>
    marked (rt_state L') = line_comment_rest w"
proof -
  have "munch cc_ts_lex 0 None (CH_SLASH # CH_SLASH # w) = munch cc_ts_lex 32 None w"
    by (simp add: cc_munch_eval)
  then show ?thesis
    using cc_lex_fn_token [OF assms(1), of 0 L] cc_comment.munch_line assms(2) by simp
qed

theorem cc_line_comment_token_witness:
  "\<exists>L'. lex_fn cursor_runtime cc_ts_lex 0
      (text_lexer [CH_SLASH, CH_SLASH, CH_BACKSLASH, CH_CR, CH_LF, CH_a, CH_LF, CH_b]) = Some (True, L') \<and>
    result_symbol L' = cc_sym_comment \<and> cur_marked (rt_state L') = [CH_LF, CH_b]"
  using cc_line_comment_token [OF cursor_text_runtime,
      of "text_lexer [CH_SLASH, CH_SLASH, CH_BACKSLASH, CH_CR, CH_LF, CH_a, CH_LF, CH_b]"]
  by (simp add: text_lexer_ahead)

end
