(* ===== verification/Lr_Tables.thy ===== *)
theory Lr_Tables
  imports Parser_H
begin

text \<open>
  What the tables of a generated \<^verbatim>\<open>parser.c\<close> mean. A table is read the way
  \<^verbatim>\<open>parser.h\<close> lays it out (\<^verbatim>\<open>LARGE_STATE_COUNT\<close>,
  \<^verbatim>\<open>SMALL_STATE\<close>, \<^verbatim>\<open>ACTIONS\<close>, \<^verbatim>\<open>STATE\<close>); the reading describes
  an LR automaton, whose steps are a relation because an entry may hold several actions. The
  interpreter of the tables, tree-sitter's runtime, is not in this repository: nothing here is a
  model of its error recovery or of its tree building. The second half of the theory shows from a certificate
  that what the automaton accepts is derivable in a grammar; the certificate is a finite check on
  the tables, which each grammar's theory evaluates.
\<close>

section \<open>Reading the tables\<close>

text \<open>
  A small state's entries are groups: a value, a number of symbols, and the symbols that have that
  value.
\<close>

fun small_lookup :: "(nat \<Rightarrow> nat) \<Rightarrow> nat \<Rightarrow> nat \<Rightarrow> TSSymbol \<Rightarrow> nat" where
  "small_lookup tbl pos 0 x = 0"
| "small_lookup tbl pos (Suc n) x =
     (if x \<in> set (map tbl [pos + 2..<pos + 2 + tbl (pos + 1)]) then tbl pos
      else small_lookup tbl (pos + 2 + tbl (pos + 1)) n x)"

definition table_value :: "TSLanguage \<Rightarrow> TSStateId \<Rightarrow> TSSymbol \<Rightarrow> nat" where
  "table_value L s x =
     (if s < large_state_count L then parse_table L (s * symbol_count L + x)
      else let p = small_parse_table_map L (SMALL_STATE (large_state_count L) s)
           in small_lookup (small_parse_table L) (p + 1) (small_parse_table L p) x)"

fun the_actions :: "TSParseActionEntry list \<Rightarrow> TSParseAction list" where
  "the_actions (Action a # es) = a # the_actions es"
| "the_actions (Entry n r # es) = the_actions es"
| "the_actions [] = []"

definition actions_at :: "(nat \<Rightarrow> TSParseActionEntry) \<Rightarrow> nat \<Rightarrow> TSParseAction list" where
  "actions_at acts v =
     (case acts v of
        Entry n r \<Rightarrow> the_actions (map acts [v + 1..<v + 1 + n])
      | Action a \<Rightarrow> [])"

definition table_actions :: "TSLanguage \<Rightarrow> TSStateId \<Rightarrow> TSSymbol \<Rightarrow> TSParseAction list" where
  "table_actions L s t = actions_at (parse_actions L) (table_value L s t)"

section \<open>The automaton\<close>

text \<open>
  A configuration is the stack of states, the top first, and the tokens not read yet, the last of
  which is the end marker 0. State 1 is the start state.
\<close>

type_synonym lr_config = "TSStateId list \<times> TSSymbol list"

inductive lr_step :: "TSLanguage \<Rightarrow> lr_config \<Rightarrow> lr_config \<Rightarrow> bool" for L where
  lr_shift: "TSParseActionTypeShift q False rep \<in> set (table_actions L s t) \<Longrightarrow>
    lr_step L (s # ss, t # ts) (q # s # ss, ts)"
| lr_reduce: "TSParseActionTypeReduce n A prec pid \<in> set (table_actions L s t) \<Longrightarrow>
    drop n (s # ss) = p # ps \<Longrightarrow> table_value L p A = q \<Longrightarrow> q \<noteq> 0 \<Longrightarrow>
    lr_step L (s # ss, t # ts) (q # p # ps, t # ts)"

inductive_cases lr_stepE: "lr_step L (s # ss, t # ts) c"

definition lr_accepts :: "TSLanguage \<Rightarrow> TSSymbol list \<Rightarrow> bool" where
  "lr_accepts L w \<longleftrightarrow> (\<exists>s ss. (lr_step L)\<^sup>*\<^sup>* ([1], w @ [0]) (s # ss, [0]) \<and>
     TSParseActionTypeAccept \<in> set (table_actions L s 0))"

section \<open>Grammars\<close>

type_synonym cfg = "(TSSymbol \<times> TSSymbol list) list"

text \<open>
  A rule of a \<^verbatim>\<open>grammar.js\<close>: the functions \<^verbatim>\<open>seq\<close>,
  \<^verbatim>\<open>choice\<close>, \<^verbatim>\<open>optional\<close> and \<^verbatim>\<open>repeat\<close>. A
  repetition is given the auxiliary symbol the generated parser names it by
  (\<^verbatim>\<open>aux_sym_..._repeat1\<close>), which stands for one or more of its content. Fields,
  aliases and precedences do not change what a rule derives and are left out.
\<close>

datatype grammar_rule =
    SYM TSSymbol
  | SEQ "grammar_rule list"
  | CHOICE "grammar_rule list"
  | OPTIONAL grammar_rule
  | REPEAT TSSymbol grammar_rule
  | REPEAT1 TSSymbol grammar_rule

fun alternatives :: "grammar_rule \<Rightarrow> TSSymbol list list" where
  "alternatives (SYM x) = [[x]]"
| "alternatives (SEQ rs) = foldr (\<lambda>r yss. concat (map (\<lambda>xs. map ((@) xs) yss) (alternatives r))) rs [[]]"
| "alternatives (CHOICE rs) = concat (map alternatives rs)"
| "alternatives (OPTIONAL r) = [] # alternatives r"
| "alternatives (REPEAT aux r) = [[], [aux]]"
| "alternatives (REPEAT1 aux r) = [[aux]]"

fun repetitions :: "grammar_rule \<Rightarrow> cfg" where
  "repetitions (SYM x) = []"
| "repetitions (SEQ rs) = concat (map repetitions rs)"
| "repetitions (CHOICE rs) = concat (map repetitions rs)"
| "repetitions (OPTIONAL r) = repetitions r"
| "repetitions (REPEAT aux r) = (aux, [aux, aux]) # map (Pair aux) (alternatives r) @ repetitions r"
| "repetitions (REPEAT1 aux r) = (aux, [aux, aux]) # map (Pair aux) (alternatives r) @ repetitions r"

definition productions :: "(TSSymbol \<times> grammar_rule) list \<Rightarrow> cfg" where
  "productions rules =
     remdups (concat (map (\<lambda>(A, r). map (Pair A) (alternatives r) @ repetitions r) rules))"

text \<open>\<open>derives G xs ws\<close>: the symbols \<open>xs\<close> derive the word \<open>ws\<close> (whatever is left is not expanded).\<close>

inductive derives :: "cfg \<Rightarrow> TSSymbol list \<Rightarrow> TSSymbol list \<Rightarrow> bool" for G where
  derives_refl: "derives G xs xs"
| derives_step: "(A, ys) \<in> set G \<Longrightarrow> derives G (us @ ys @ vs) ws \<Longrightarrow> derives G (us @ A # vs) ws"

lemma rule_productions:
  assumes "(A, r) \<in> set rules"
  shows "list_all (\<lambda>p. p \<in> set (productions rules)) (map (Pair A) (alternatives r) @ repetitions r)"
proof -
  have "set (map (Pair A) (alternatives r) @ repetitions r) \<subseteq> set (productions rules)"
    using assms unfolding productions_def set_remdups set_concat set_map by blast
  then show ?thesis by (auto simp: list_all_iff simp del: set_append)
qed

lemma derives_trans: "derives G xs ys \<Longrightarrow> derives G ys zs \<Longrightarrow> derives G xs zs"
  by (induction rule: derives.induct) (auto intro: derives.intros)

lemma derives_context: "derives G xs ys \<Longrightarrow> derives G (us @ xs @ vs) (us @ ys @ vs)"
proof (induction rule: derives.induct)
  case (derives_refl xs)
  show ?case by (rule derives.derives_refl)
next
  case (derives_step A ys us' vs' ws)
  show ?case
    using derives.derives_step [OF derives_step.hyps(1), of "us @ us'" "vs' @ vs"] derives_step.IH by simp
qed

lemma derives_append:
  assumes "derives G xs us" and "derives G ys vs"
  shows "derives G (xs @ ys) (us @ vs)"
  using derives_trans [of G "xs @ ys" "us @ ys" "us @ vs"]
    derives_context [OF assms(1), of "[]" ys] derives_context [OF assms(2), of us "[]"]
  by simp

lemma derives_production: "(A, ys) \<in> set G \<Longrightarrow> derives G [A] ys"
  using derives_step [of A ys G "[]" "[]" ys] by (simp add: derives_refl)

lemma derives_concat:
  "list_all2 (\<lambda>x w. derives G [x] w) xs ws \<Longrightarrow> derives G xs (concat ws)"
proof (induction rule: list_all2_induct)
  case Nil
  show ?case by (simp add: derives_refl)
next
  case (Cons x xs w ws)
  then show ?case
    using derives_append [of G "[x]" w xs "concat ws"] by simp
qed

text \<open>Chains of unit productions, up to a depth.\<close>

fun unit_derives :: "nat \<Rightarrow> cfg \<Rightarrow> TSSymbol \<Rightarrow> TSSymbol \<Rightarrow> bool" where
  "unit_derives 0 G A x \<longleftrightarrow> A = x"
| "unit_derives (Suc k) G A x \<longleftrightarrow>
     A = x \<or> list_ex (\<lambda>(B, ys). B = A \<and> (case ys of [y] \<Rightarrow> unit_derives k G y x | _ \<Rightarrow> False)) G"

lemma unit_derives_sound: "unit_derives k G A x \<Longrightarrow> derives G [A] [x]"
proof (induction k arbitrary: A)
  case 0
  then show ?case by (simp add: derives_refl)
next
  case (Suc k)
  show ?case
  proof (cases "A = x")
    case True
    then show ?thesis by (simp add: derives_refl)
  next
    case False
    then obtain B ys where "(B, ys) \<in> set G" "B = A \<and> (case ys of [y] \<Rightarrow> unit_derives k G y x | _ \<Rightarrow> False)"
      using Suc.prems by (auto simp: list_ex_iff)
    then obtain y where "(A, [y]) \<in> set G" "unit_derives k G y x"
      by (auto split: list.splits)
    then show ?thesis
      using derives_trans [OF derives_production] Suc.IH by blast
  qed
qed

definition unit_depth :: nat where
  "unit_depth = 3"

abbreviation unit_ok :: "cfg \<Rightarrow> TSSymbol \<Rightarrow> TSSymbol \<Rightarrow> bool" where
  "unit_ok G \<equiv> unit_derives unit_depth G"

text \<open>A production covers a word of symbols when its symbols derive them one by one.\<close>

definition covers :: "cfg \<Rightarrow> TSSymbol \<Rightarrow> TSSymbol list \<Rightarrow> bool" where
  "covers G A xs \<longleftrightarrow> list_ex (\<lambda>(B, ys). B = A \<and> list_all2 (unit_ok G) ys xs) G"

lemma covers_sound:
  assumes "covers G A xs"
  shows "derives G [A] xs"
proof -
  obtain ys where ys: "(A, ys) \<in> set G" "list_all2 (unit_ok G) ys xs"
    using assms by (auto simp: covers_def list_ex_iff)
  then have "list_all2 (\<lambda>y w. derives G [y] w) ys (map (\<lambda>x. [x]) xs)"
    by (auto simp: list_all2_conv_all_nth unit_derives_sound)
  then have "derives G ys xs"
    using derives_concat by fastforce
  then show ?thesis
    using derives_trans [OF derives_production [OF ys(1)]] by simp
qed

text \<open>The same from single productions, for a grammar that is known by its members.\<close>

lemma unit_refl [simp]: "unit_derives k G x x"
  by (cases k) simp_all

lemma unit_step: "(A, [y]) \<in> set G \<Longrightarrow> unit_derives k G y x \<Longrightarrow> unit_derives (Suc k) G A x"
  by (force simp: list_ex_iff)

lemma covers_production: "(A, xs) \<in> set G \<Longrightarrow> covers G A xs"
  unfolding covers_def list_ex_iff by (rule bexI [of _ "(A, xs)"]) (simp_all add: list_all2_conv_all_nth)

lemma derives_single:
  assumes "derives G [A] ws"
  shows "ws = [A] \<or> (\<exists>ys. (A, ys) \<in> set G \<and> derives G ys ws)"
  using assms by cases (auto simp: Cons_eq_append_conv)

lemma derives_empty: "derives G [] ws \<longleftrightarrow> ws = []"
  by (auto elim: derives.cases intro: derives_refl)

section \<open>What every derived word has\<close>

text \<open>A property of all productions of a grammar is one of its rules.\<close>

lemma productions_all:
  "list_all P (productions rules) \<longleftrightarrow>
     list_all (\<lambda>(A, r). list_all P (map (Pair A) (alternatives r) @ repetitions r)) rules"
  by (force simp: productions_def list_all_iff)

text \<open>
  Brackets: \<open>closer x\<close> is the symbol that closes \<open>x\<close>, if \<open>x\<close> opens a bracket. The
  scan keeps the closing symbols it waits for. An inner symbol may stand only inside a bracket, or
  anywhere if \<open>within\<close> says that what is scanned is inside one.
\<close>

fun nest ::
  "(TSSymbol \<Rightarrow> TSSymbol option) \<Rightarrow> TSSymbol list \<Rightarrow> TSSymbol list \<Rightarrow> bool \<Rightarrow> TSSymbol list \<Rightarrow> TSSymbol list \<Rightarrow>
     TSSymbol list option" where
  "nest closer closers inner within [] st = Some st"
| "nest closer closers inner within (x # xs) st =
     (case closer x of
        Some y \<Rightarrow> nest closer closers inner within xs (y # st)
      | None \<Rightarrow>
          if x \<in> set closers
          then (case st of
                  [] \<Rightarrow> None
                | y # st' \<Rightarrow> if x = y then nest closer closers inner within xs st' else None)
          else if x \<in> set inner \<and> st = [] \<and> \<not> within then None
          else nest closer closers inner within xs st)"

definition nested :: "(TSSymbol \<Rightarrow> TSSymbol option) \<Rightarrow> TSSymbol list \<Rightarrow> TSSymbol list \<Rightarrow> TSSymbol list \<Rightarrow> bool" where
  "nested closer closers inner xs \<longleftrightarrow> nest closer closers inner False xs [] = Some []"

lemma nest_append:
  "nest closer closers inner within (xs @ ys) st =
     Option.bind (nest closer closers inner within xs st) (nest closer closers inner within ys)"
  by (induction xs arbitrary: st) (auto split: option.splits list.splits)

lemma nest_deeper:
  "nest closer closers inner within xs st = Some st' \<Longrightarrow> within' \<or> st'' \<noteq> [] \<or> \<not> within \<Longrightarrow>
   nest closer closers inner within' xs (st @ st'') = Some (st' @ st'')"
  by (induction closer closers inner within xs st rule: nest.induct)
    (auto split: option.splits list.splits if_splits)

text \<open>
  If every production is nested, that of an inner symbol when it is read inside a bracket, and no
  bracket is expanded, derivation keeps the nesting.
\<close>

definition nested_grammar :: "(TSSymbol \<Rightarrow> TSSymbol option) \<Rightarrow> TSSymbol list \<Rightarrow> TSSymbol list \<Rightarrow> cfg \<Rightarrow> bool" where
  "nested_grammar closer closers inner G \<longleftrightarrow>
     list_all (\<lambda>(A, ys). closer A = None \<and> A \<notin> set closers \<and>
       nest closer closers inner (A \<in> set inner) ys [] = Some []) G"

lemma derives_nest:
  assumes "nested_grammar closer closers inner G" and "derives G xs ws"
  shows "nest closer closers inner False xs st = Some st' \<Longrightarrow> nest closer closers inner False ws st = Some st'"
  using assms(2)
proof induction
  case (derives_step A ys us vs ws)
  have A: "closer A = None" "A \<notin> set closers" "nest closer closers inner (A \<in> set inner) ys [] = Some []"
    using assms(1) derives_step.hyps(1) by (auto simp: nested_grammar_def list_all_iff)
  obtain m where m: "nest closer closers inner False us st = Some m" "nest closer closers inner False (A # vs) m = Some st'"
    using derives_step.prems by (auto simp: nest_append bind_eq_Some_conv)
  then have "A \<notin> set inner \<or> m \<noteq> []" "nest closer closers inner False vs m = Some st'"
    using A(1,2) by (auto split: if_splits)
  then have "nest closer closers inner False (us @ ys @ vs) st = Some st'"
    using m(1) nest_deeper [OF A(3), of False m] by (auto simp: nest_append)
  then show ?case by (rule derives_step.IH)
qed simp

text \<open>If every production of some symbols ends in one of them, so does what they derive.\<close>

definition ending_grammar :: "TSSymbol set \<Rightarrow> cfg \<Rightarrow> bool" where
  "ending_grammar E G \<longleftrightarrow> list_all (\<lambda>(A, ys). A \<in> E \<longrightarrow> ys \<noteq> [] \<and> last ys \<in> E) G"

lemma derives_last:
  assumes "ending_grammar E G" and "derives G xs ws"
  shows "xs \<noteq> [] \<Longrightarrow> last xs \<in> E \<Longrightarrow> ws \<noteq> [] \<and> last ws \<in> E"
  using assms(2)
proof induction
  case (derives_step A ys us vs ws)
  have "vs = [] \<Longrightarrow> ys \<noteq> [] \<and> last ys \<in> E"
    using derives_step assms(1) by (auto simp: ending_grammar_def list_all_iff)
  then show ?case
    using derives_step by (cases "vs = []") auto
qed simp

section \<open>The initialisers behind the tables\<close>

text \<open>The designated runs of a flat table follow each other without gaps.\<close>

fun contiguous :: "nat \<Rightarrow> (nat \<times> 'a list) list \<Rightarrow> bool" where
  "contiguous k [] \<longleftrightarrow> True"
| "contiguous k ((j, xs) # rs) \<longleftrightarrow> j = k \<and> xs \<noteq> [] \<and> contiguous (k + length xs) rs"

lemma designated_from_below: "contiguous k rs \<Longrightarrow> i < k \<Longrightarrow> designated_from d rs i = d"
  by (induction k rs arbitrary: d rule: contiguous.induct) auto

lemma contiguous_nth:
  "contiguous k rs \<Longrightarrow> (j, xs) \<in> set rs \<Longrightarrow> i < length xs \<Longrightarrow> designated_from d rs (j + i) = xs ! i"
proof (induction k rs arbitrary: d rule: contiguous.induct)
  case (1 k)
  then show ?case by simp
next
  case (2 k j' ys rs)
  show ?case
  proof (cases "(j, xs) = (j', ys)")
    case True
    then show ?thesis
      using "2.prems" designated_from_below [of "k + length ys" rs "j + i"] by auto
  next
    case False
    then show ?thesis
      using "2.prems" "2.IH" by auto
  qed
qed

lemma array_of_mem: "array_of d xs i \<noteq> d \<Longrightarrow> (i, array_of d xs i) \<in> set xs"
proof (induction xs arbitrary: d)
  case Nil
  then show ?case by simp
next
  case (Cons p xs)
  then show ?case
    by (cases p; cases "array_of (if i = fst p then snd p else d) xs i = (if i = fst p then snd p else d)")
      (auto split: if_splits)
qed

lemma array_of_distinct:
  "i \<in> set (map fst xs) \<Longrightarrow> distinct (map fst xs) \<Longrightarrow> (i, array_of d xs i) \<in> set xs"
proof (induction xs arbitrary: d)
  case Nil
  then show ?case by simp
next
  case (Cons p xs)
  have other: "array_of d xs i = d" if "i \<notin> set (map fst xs)" for d
    using that array_of_mem [of d xs i] by force
  show ?case
    using Cons other [of "snd p"] by (cases p) auto
qed

text \<open>The entries a run of the small table holds.\<close>

fun run_groups :: "nat \<Rightarrow> nat list \<Rightarrow> (TSSymbol \<times> nat) list option" where
  "run_groups 0 xs = (if xs = [] then Some [] else None)"
| "run_groups (Suc n) (v # c # xs) =
     (if c \<le> length xs then map_option (\<lambda>es. map (\<lambda>x. (x, v)) (take c xs) @ es) (run_groups n (drop c xs))
      else None)"
| "run_groups (Suc n) _ = None"

fun run_entries :: "nat list \<Rightarrow> (TSSymbol \<times> nat) list option" where
  "run_entries [] = None"
| "run_entries (n # xs) = run_groups n xs"

text \<open>The value a list of entries gives a symbol: its first, as the reading above takes it.\<close>

fun first_entry :: "(TSSymbol \<times> nat) list \<Rightarrow> TSSymbol \<Rightarrow> nat" where
  "first_entry [] x = 0"
| "first_entry ((y, v) # es) x = (if x = y then v else first_entry es x)"

lemma first_entry_group:
  "first_entry (map (\<lambda>x. (x, v)) ys @ es) x = (if x \<in> set ys then v else first_entry es x)"
  by (induction ys) auto

lemma small_lookup_first:
  "run_groups n xs = Some es \<Longrightarrow> (\<And>i. i < length xs \<Longrightarrow> tbl (pos + i) = xs ! i) \<Longrightarrow>
   small_lookup tbl pos n x = first_entry es x"
proof (induction n xs arbitrary: es pos rule: run_groups.induct)
  case (1 xs)
  then show ?case by (auto split: if_splits)
next
  case (2 n v c xs)
  obtain es' where es': "c \<le> length xs" "run_groups n (drop c xs) = Some es'" "es = map (\<lambda>x. (x, v)) (take c xs) @ es'"
    using "2.prems"(1) by (auto split: if_splits)
  have tbl: "tbl pos = v" "tbl (pos + 1) = c" "\<And>i. i < length xs \<Longrightarrow> tbl (pos + 2 + i) = xs ! i"
    using "2.prems"(2) [of 0] "2.prems"(2) [of 1] "2.prems"(2) [of "2 + i" for i] by (simp_all add: add.assoc)
  have "map tbl [pos + 2..<pos + 2 + c] = take c xs"
    by (rule nth_equalityI) (use es'(1) tbl(3) in \<open>auto simp: nth_upt simp del: upt_Suc add_2_eq_Suc'\<close>)
  then have "small_lookup tbl pos (Suc n) x =
      (if x \<in> set (take c xs) then v else small_lookup tbl (pos + 2 + c) n x)"
    by (simp only: small_lookup.simps tbl)
  moreover have "small_lookup tbl (pos + 2 + c) n x = first_entry es' x"
    using "2.IH" [OF es'(1,2)] tbl(3) [of "c + i" for i] es'(1) by (simp add: add.assoc)
  ultimately show ?case
    by (simp only: es'(3) first_entry_group)
qed auto

lemma first_entry_mem: "first_entry es x \<noteq> 0 \<Longrightarrow> (x, first_entry es x) \<in> set es"
  by (induction es x rule: first_entry.induct) auto

lemma first_entry_nonzero: "x \<in> set (map fst es) \<Longrightarrow> 0 \<notin> set (map snd es) \<Longrightarrow> first_entry es x \<noteq> 0"
  by (induction es x rule: first_entry.induct) auto

text \<open>Checking every entry of the tables, from the initialisers.\<close>

definition check_large :: "(nat \<Rightarrow> TSSymbol \<Rightarrow> nat \<Rightarrow> bool) \<Rightarrow> (nat \<times> (TSSymbol \<times> nat) list) list \<Rightarrow> bool" where
  "check_large P rows \<longleftrightarrow> list_all (\<lambda>(s, row). list_all (\<lambda>(x, v). P s x v) row) rows"

definition check_small ::
  "(nat \<Rightarrow> TSSymbol \<Rightarrow> nat \<Rightarrow> bool) \<Rightarrow> nat \<Rightarrow> (nat \<times> nat) list \<Rightarrow> (nat \<times> nat list) list \<Rightarrow> bool" where
  "check_small P large smap runs \<longleftrightarrow>
     list_all (\<lambda>(i, p).
       case run_entries (array_of [] runs p) of
         None \<Rightarrow> False
       | Some es \<Rightarrow> list_all (\<lambda>(x, v). P (i + large) x v) es) smap"

text \<open>A language object built from the initialisers of its tables.\<close>

locale table_initialisers =
  fixes L :: TSLanguage
    and rows :: "(nat \<times> (TSSymbol \<times> nat) list) list"
    and smap :: "(nat \<times> nat) list"
    and runs :: "(nat \<times> nat list) list"
    and acts :: "(nat \<times> TSParseActionEntry list) list"
  assumes large_table: "parse_table L = flat_table 0 (symbol_count L) rows"
    and small_table: "small_parse_table L = designated_from 0 runs" "contiguous 0 runs"
    and small_map: "small_parse_table_map L = array_of 0 smap"
      "map fst smap = [0..<state_count L - large_state_count L]"
    and actions: "parse_actions L = designated_from (Entry 0 False) acts" "contiguous 0 acts"
      "(0, [Entry 0 False]) \<in> set acts"
begin

lemma large_value:
  "s < large_state_count L \<Longrightarrow> x < symbol_count L \<Longrightarrow> table_value L s x = array_of 0 (array_of [] rows s) x"
  by (simp add: table_value_def large_table flat_table_nth)

lemma small_value:
  assumes "large_state_count L \<le> s"
    and "run_entries (array_of [] runs (array_of 0 smap (s - large_state_count L))) \<noteq> None"
  shows "table_value L s x =
    first_entry (the (run_entries (array_of [] runs (array_of 0 smap (s - large_state_count L))))) x"
proof -
  let ?p = "array_of 0 smap (s - large_state_count L)"
  obtain n xs es where run: "array_of [] runs ?p = n # xs" "run_groups n xs = Some es"
    using assms(2) by (cases "array_of [] runs ?p") auto
  then have "(?p, n # xs) \<in> set runs"
    using array_of_mem [of "[]" runs ?p] by simp
  note at = contiguous_nth [OF small_table(2) this, of _ 0, folded small_table(1)]
  have "table_value L s x = small_lookup (small_parse_table L) (?p + 1) n x"
    using assms(1) at [of 0] by (simp add: table_value_def small_map(1) SMALL_STATE_def Let_def)
  moreover have "small_parse_table L (?p + 1 + i) = xs ! i" if "i < length xs" for i
    using at [of "Suc i"] that by simp
  ultimately show ?thesis
    using small_lookup_first [OF run(2), of "small_parse_table L" "?p + 1"] run by simp
qed

lemma large_entry:
  assumes "check_large P rows" and "s < large_state_count L" and "x < symbol_count L" and "table_value L s x \<noteq> 0"
  shows "P s x (table_value L s x)"
proof -
  have val: "table_value L s x = array_of 0 (array_of [] rows s) x"
    using large_value [OF assms(2,3)] .
  then have x: "(x, table_value L s x) \<in> set (array_of [] rows s)"
    using array_of_mem [of 0 "array_of [] rows s" x] assms(4) val by simp
  moreover have "(s, array_of [] rows s) \<in> set rows"
    using x by (intro array_of_mem) auto
  ultimately show ?thesis
    using assms(1) by (auto simp: check_large_def list_all_iff)
qed

lemma small_entry:
  assumes "check_small P (large_state_count L) smap runs" and "large_state_count L \<le> s" and "s < state_count L"
    and "table_value L s x \<noteq> 0"
  shows "P s x (table_value L s x)"
proof -
  let ?i = "s - large_state_count L" and ?p = "array_of 0 smap (s - large_state_count L)"
  have "?i \<in> set (map fst smap)"
    using assms(2,3) by (simp add: small_map(2))
  moreover have distinct: "distinct (map fst smap)"
    by (simp add: small_map(2))
  ultimately have p: "(?i, ?p) \<in> set smap"
    by (rule array_of_distinct)
  then obtain es where es: "run_entries (array_of [] runs ?p) = Some es"
      "list_all (\<lambda>(x, v). P (?i + large_state_count L) x v) es"
    using assms(1) by (auto simp: check_small_def list_all_iff split: option.splits)
  have "table_value L s x = first_entry es x"
    using small_value [OF assms(2)] es(1) by simp
  then have "(x, table_value L s x) \<in> set es"
    using first_entry_mem [of es x] assms(4) by simp
  then show ?thesis
    using es(2) assms(2) by (auto simp: list_all_iff)
qed

lemma actions_of_run:
  assumes "array_of [] acts v = Entry n r # es" and "length es = n"
  shows "actions_at (parse_actions L) v = the_actions es"
proof -
  have mem: "(v, Entry n r # es) \<in> set acts"
    using array_of_mem [of "[]" acts v] assms(1) by simp
  note at = contiguous_nth [OF actions(2) mem, of _ "Entry 0 False", folded actions(1)]
  have "map (parse_actions L) [v + 1..<v + 1 + n] = es"
    by (rule nth_equalityI) (use assms(2) at [of "Suc i" for i] in \<open>auto simp: nth_upt simp del: upt_Suc\<close>)
  then show ?thesis
    using at [of 0] by (simp add: actions_at_def)
qed

lemma every_entry:
  assumes "check_large P rows" and "check_small P (large_state_count L) smap runs"
    and "s < state_count L" and "x < symbol_count L" and "table_value L s x \<noteq> 0"
  shows "P s x (table_value L s x)"
  using large_entry [OF assms(1) _ assms(4,5)] small_entry [OF assms(2) _ assms(3,5)]
  by (cases "s < large_state_count L") auto

end

section \<open>A certificate of soundness\<close>

text \<open>
  The certificate gives, for every state, the states it can be entered from and a symbol that
  derives every symbol it is entered by (\<open>inc\<close>), and the reductions the states hold (\<open>reds\<close>). Walking
  \<open>inc\<close> back from a reducing state spells the words that may be on top of the stack; each must be
  covered by a production, and the walk must not run past the start state.
\<close>

type_synonym incoming = "(TSStateId \<times> (TSStateId \<times> TSSymbol) list) list"

definition enters :: "incoming \<Rightarrow> cfg \<Rightarrow> TSStateId \<Rightarrow> TSSymbol \<Rightarrow> TSStateId \<Rightarrow> bool" where
  "enters inc G p x q \<longleftrightarrow> list_ex (\<lambda>(p', Z). p' = p \<and> unit_ok G Z x) (array_of [] inc q)"

definition certified_action ::
  "incoming \<Rightarrow> (TSStateId \<times> TSSymbol \<times> nat) list \<Rightarrow> cfg \<Rightarrow> TSSymbol \<Rightarrow> nat \<Rightarrow> TSSymbol \<Rightarrow> TSParseAction \<Rightarrow> bool" where
  "certified_action inc reds G start s x a =
     (case a of
        TSParseActionTypeShift q extra rep \<Rightarrow> \<not> extra \<and> enters inc G s x q
      | TSParseActionTypeReduce n A prec pid \<Rightarrow> (s, A, n) \<in> set reds
      | TSParseActionTypeAccept \<Rightarrow> x = 0 \<and> s \<noteq> 1 \<and> list_all (\<lambda>(p, Z). p = 1 \<and> Z = start) (array_of [] inc s)
      | TSParseActionTypeRecover \<Rightarrow> False)"

text \<open>One entry of the tables; state 0 is the error state, which no configuration reaches.\<close>

definition certified_entry ::
  "incoming \<Rightarrow> (TSStateId \<times> TSSymbol \<times> nat) list \<Rightarrow> cfg \<Rightarrow> TSSymbol \<Rightarrow> nat \<Rightarrow>
     (nat \<times> TSParseActionEntry list) list \<Rightarrow> nat \<Rightarrow> TSSymbol \<Rightarrow> nat \<Rightarrow> bool" where
  "certified_entry inc reds G start tokens acts s x v \<longleftrightarrow>
     s = 0 \<or>
     (if x < tokens then
        (case array_of [] acts v of
           Entry n r # es \<Rightarrow>
             length es = n \<and> list_all (\<lambda>e. case e of Action a \<Rightarrow> certified_action inc reds G start s x a | _ \<Rightarrow> False) es
         | _ \<Rightarrow> False)
      else enters inc G s x v)"

fun certified_walk :: "incoming \<Rightarrow> cfg \<Rightarrow> TSSymbol \<Rightarrow> nat \<Rightarrow> TSStateId \<Rightarrow> TSSymbol list \<Rightarrow> bool" where
  "certified_walk inc G A 0 q w \<longleftrightarrow> covers G A w"
| "certified_walk inc G A (Suc n) q w \<longleftrightarrow>
     q \<noteq> 1 \<and> list_all (\<lambda>(p, Z). certified_walk inc G A n p (Z # w)) (array_of [] inc q)"

definition certified_reductions :: "incoming \<Rightarrow> (TSStateId \<times> TSSymbol \<times> nat) list \<Rightarrow> cfg \<Rightarrow> bool" where
  "certified_reductions inc reds G \<longleftrightarrow> list_all (\<lambda>(q, A, n). certified_walk inc G A n q []) reds"

locale certified_tables = table_initialisers +
  fixes inc :: incoming and reds :: "(TSStateId \<times> TSSymbol \<times> nat) list" and G :: cfg and start :: TSSymbol
  assumes entries: "check_large (certified_entry inc reds G start (token_count L) acts) rows"
      "check_small (certified_entry inc reds G start (token_count L) acts) (large_state_count L) smap runs"
    and reductions: "certified_reductions inc reds G"
    and no_way_in: "array_of [] inc 1 = []" "array_of [] inc 0 = []"
    and inc_states: "list_all (\<lambda>(q, ps). q < state_count L) inc"
    and red_symbols: "list_all (\<lambda>(q, A, n). A < symbol_count L \<and> token_count L \<le> A) reds"
    and counts: "0 < token_count L" "token_count L \<le> symbol_count L" "1 < state_count L"
begin

text \<open>A stack and, for each state above the start state, the tokens its symbol derives.\<close>

inductive stack_ok :: "TSStateId list \<Rightarrow> TSSymbol list list \<Rightarrow> bool" where
  stack_start: "stack_ok [1] []"
| stack_push: "stack_ok (p # ss) us \<Longrightarrow> (p, Z) \<in> set (array_of [] inc q) \<Longrightarrow> derives G [Z] u \<Longrightarrow>
    stack_ok (q # p # ss) (u # us)"

inductive_cases stack_okE: "stack_ok (q # ss) us"

lemma stack_pushed:
  assumes "stack_ok (p # ss) us" and "enters inc G p x q" and "derives G [x] u"
  shows "stack_ok (q # p # ss) (u # us)"
proof -
  obtain Z where Z: "(p, Z) \<in> set (array_of [] inc q)" "unit_ok G Z x"
    using assms(2) by (auto simp: enters_def list_ex_iff)
  show ?thesis
    by (rule stack_push [OF assms(1) Z(1) derives_trans [OF unit_derives_sound [OF Z(2)] assms(3)]])
qed

lemma entered_bound: "(p, Z) \<in> set (array_of [] inc q) \<Longrightarrow> q < state_count L \<and> q \<noteq> 0"
proof
  assume q: "(p, Z) \<in> set (array_of [] inc q)"
  then have "(q, array_of [] inc q) \<in> set inc"
    by (intro array_of_mem) auto
  then show "q < state_count L"
    using inc_states by (auto simp: list_all_iff)
  show "q \<noteq> 0"
    using q no_way_in(2) by (cases "q = 0") simp_all
qed

lemma stack_top: "stack_ok (s # ss) us \<Longrightarrow> s < state_count L \<and> s \<noteq> 0"
  by (erule stack_okE) (use counts(3) entered_bound in auto)

lemma stack_walk:
  "stack_ok (s # ss) us \<Longrightarrow> certified_walk inc G A n s w \<Longrightarrow> list_all2 (\<lambda>x u. derives G [x] u) w ws \<Longrightarrow>
   \<exists>p ps. drop n (s # ss) = p # ps \<and> stack_ok (p # ps) (drop n us) \<and>
     derives G [A] (concat (rev (take n us)) @ concat ws)"
proof (induction n arbitrary: s ss us w ws)
  case 0
  then show ?case
    using derives_trans [OF covers_sound derives_concat] by simp
next
  case (Suc n)
  have "s \<noteq> 1"
    using Suc.prems(2) by simp
  with Suc.prems(1) obtain p ps u us' Z where st: "ss = p # ps" "us = u # us'" "stack_ok (p # ps) us'"
      "(p, Z) \<in> set (array_of [] inc s)" "derives G [Z] u"
    by (auto elim: stack_okE)
  have "certified_walk inc G A n p (Z # w)"
    using Suc.prems(2) st(4) by (auto simp: list_all_iff)
  from Suc.IH [OF st(3) this, of "u # ws"] st Suc.prems(3) show ?case
    by simp
qed

lemma actions_of_entry:
  assumes "s < state_count L" and "s \<noteq> 0" and "x < token_count L" and "a \<in> set (table_actions L s x)"
  shows "certified_action inc reds G start s x a"
proof (cases "table_value L s x = 0")
  case True
  have "parse_actions L 0 = Entry 0 False"
    using contiguous_nth [OF actions(2,3), of 0 "Entry 0 False"] by (simp add: actions(1))
  then have "actions_at (parse_actions L) 0 = []"
    by (simp add: actions_at_def)
  with True assms(4) show ?thesis
    by (simp add: table_actions_def)
next
  case False
  let ?v = "table_value L s x"
  have "certified_entry inc reds G start (token_count L) acts s x ?v"
    by (rule every_entry [OF entries assms(1) _ False]) (use assms(3) counts(2) in simp)
  then obtain n r es where run: "array_of [] acts ?v = Entry n r # es" "length es = n"
      "\<forall>e \<in> set es. case e of Action a \<Rightarrow> certified_action inc reds G start s x a | _ \<Rightarrow> False"
    using assms(2,3) by (auto simp: certified_entry_def list_all_iff split: list.splits TSParseActionEntry.splits)
  then have "table_actions L s x = the_actions es"
    using actions_of_run [of ?v n r es] by (simp add: table_actions_def)
  moreover have "Action a \<in> set es" if "a \<in> set (the_actions es)" for a es
    using that by (induction es rule: the_actions.induct) auto
  ultimately have "Action a \<in> set es"
    using assms(4) by simp
  then show ?thesis
    using run(3) by auto
qed

lemma step_ok:
  assumes "lr_step L (stack, ts) (stack', ts')" and "stack_ok stack us" and "\<forall>t \<in> set ts. t < token_count L"
  shows "\<exists>us'. stack_ok stack' us' \<and> concat (rev us') @ ts' = concat (rev us) @ ts"
  using assms(1)
proof cases
  case (lr_shift q rep s t ss)
  have s: "s < state_count L" "s \<noteq> 0" and t: "t < token_count L"
    using stack_top assms(2,3) lr_shift(1,2) by auto
  have "enters inc G s t q"
    using actions_of_entry [OF s t lr_shift(4)] by (simp add: certified_action_def)
  from stack_pushed [OF _ this derives_refl] assms(2) lr_shift(1-3) show ?thesis
    by (intro exI [of _ "[t] # us"]) simp
next
  case (lr_reduce n A prec pid s t ss p ps q rest)
  have s: "s < state_count L" "s \<noteq> 0" and t: "t < token_count L"
    using stack_top assms(2,3) lr_reduce(1,2) by auto
  have red: "(s, A, n) \<in> set reds"
    using actions_of_entry [OF s t lr_reduce(5)] by (simp add: certified_action_def)
  then have "certified_walk inc G A n s []"
    using reductions by (auto simp: certified_reductions_def list_all_iff)
  from stack_walk [OF assms(2) [unfolded lr_reduce(1)] this, of "[]"] lr_reduce(6)
  have walk: "stack_ok (p # ps) (drop n us)" "derives G [A] (concat (rev (take n us)))"
    by auto
  have A: "A < symbol_count L" "\<not> A < token_count L"
    using red red_symbols by (auto simp: list_all_iff)
  have "enters inc G p A q"
    using every_entry [OF entries, of p A] stack_top [OF walk(1)] A lr_reduce(7,8)
    by (auto simp: certified_entry_def)
  then have "stack_ok stack' (concat (rev (take n us)) # drop n us)"
    unfolding lr_reduce(3) by (rule stack_pushed [OF walk(1) _ walk(2)])
  moreover have "concat (rev (concat (rev (take n us)) # drop n us)) = concat (rev (take n us @ drop n us))"
    by (simp only: rev.simps rev_append concat_append concat.simps append_Nil2)
  ultimately show ?thesis
    using lr_reduce(2,4) by auto
qed

lemma steps_ok:
  "(lr_step L)\<^sup>*\<^sup>* ([1], ts) (stack, ts') \<Longrightarrow> \<forall>t \<in> set ts. t < token_count L \<Longrightarrow>
   \<exists>us. stack_ok stack us \<and> ts = concat (rev us) @ ts'"
proof (induction rule: rtranclp_induct2)
  case refl
  show ?case
    using stack_start by (intro exI [of _ "[]"]) simp
next
  case (step st t1 st' t2)
  then obtain us where us: "stack_ok st us" "ts = concat (rev us) @ t1"
    by blast
  then have "\<forall>t \<in> set t1. t < token_count L"
    using step.prems by simp
  from step_ok [OF step.hyps(2) us(1) this] us(2) show ?case
    by auto
qed

lemma accepted_derivable:
  assumes "lr_accepts L w" and "\<forall>t \<in> set w. t < token_count L"
  shows "derives G [start] w"
proof -
  obtain s ss where run: "(lr_step L)\<^sup>*\<^sup>* ([1], w @ [0]) (s # ss, [0])"
      "TSParseActionTypeAccept \<in> set (table_actions L s 0)"
    using assms(1) by (auto simp: lr_accepts_def)
  obtain us where us: "stack_ok (s # ss) us" "w @ [0] = concat (rev us) @ [0]"
    using steps_ok [OF run(1)] assms(2) counts(1) by auto
  have s: "s < state_count L" "s \<noteq> 0"
    using stack_top [OF us(1)] by simp_all
  have acc: "s \<noteq> 1" "\<And>p Z. (p, Z) \<in> set (array_of [] inc s) \<Longrightarrow> p = 1 \<and> Z = start"
    using actions_of_entry [OF s counts(1) run(2)] by (auto simp: certified_action_def list_all_iff)
  obtain p ps u us' Z where st: "us = u # us'" "stack_ok (p # ps) us'" "(p, Z) \<in> set (array_of [] inc s)" "derives G [Z] u"
    using us(1) acc(1) by (auto elim: stack_okE)
  moreover have "us' = []"
    using st(2) acc(2) [OF st(3)] no_way_in(1) by (auto elim: stack_okE)
  ultimately show ?thesis
    using us(2) acc(2) [OF st(3)] by simp
qed

end

section \<open>No reduction gets stuck\<close>

text \<open>
  A reduction needs a \<^verbatim>\<open>STATE\<close> entry for its symbol in the state it uncovers. The
  check walks back from each reducing state, as above, and looks the entry up where the walk ends.
\<close>

definition has_entry ::
  "(nat \<times> (TSSymbol \<times> nat) list) list \<Rightarrow> nat \<Rightarrow> (nat \<times> nat) list \<Rightarrow> (nat \<times> nat list) list \<Rightarrow>
     nat \<Rightarrow> TSSymbol \<Rightarrow> bool" where
  "has_entry rows large smap runs s x \<longleftrightarrow>
     (if s < large then array_of 0 (array_of [] rows s) x \<noteq> 0
      else case run_entries (array_of [] runs (array_of 0 smap (s - large))) of
             None \<Rightarrow> False
           | Some es \<Rightarrow> x \<in> set (map fst es) \<and> 0 \<notin> set (map snd es))"

fun uncovers :: "incoming \<Rightarrow> (TSStateId \<Rightarrow> bool) \<Rightarrow> nat \<Rightarrow> TSStateId \<Rightarrow> bool" where
  "uncovers inc P 0 q \<longleftrightarrow> P q"
| "uncovers inc P (Suc n) q \<longleftrightarrow> list_all (\<lambda>(p, Z). uncovers inc P n p) (array_of [] inc q)"

lemma uncovers_numeral:
  "uncovers inc P (numeral n) q \<longleftrightarrow> list_all (\<lambda>(p, Z). uncovers inc P (pred_numeral n) p) (array_of [] inc q)"
  by (simp add: numeral_eq_Suc)

context table_initialisers
begin

lemma has_entry_value:
  assumes "has_entry rows (large_state_count L) smap runs s x" and "s < state_count L" and "x < symbol_count L"
  shows "table_value L s x \<noteq> 0"
proof (cases "s < large_state_count L")
  case True
  then show ?thesis
    using assms(1,3) by (simp add: has_entry_def large_value)
next
  case False
  then show ?thesis
    using assms(1) first_entry_nonzero by (auto simp: has_entry_def small_value split: option.splits)
qed

end

text \<open>
  An action can be taken: a shift reads the token, as no extra, and enters its state; a reduction finds its symbols on
  the stack with a state below them, that state has an entry for its symbol, and the step goes there;
  the input is accepted at its end marker only. Recovery is never an action of these tables.
\<close>

definition takes_action :: "TSLanguage \<Rightarrow> lr_config \<Rightarrow> TSParseAction \<Rightarrow> bool" where
  "takes_action L c a \<longleftrightarrow>
     (case a of
        TSParseActionTypeShift q extra rep \<Rightarrow> \<not> extra \<and> lr_step L c (q # fst c, tl (snd c))
      | TSParseActionTypeReduce n A prec pid \<Rightarrow>
          (case drop n (fst c) of
             [] \<Rightarrow> False
           | p # ps \<Rightarrow> table_value L p A \<noteq> 0 \<and> lr_step L c (table_value L p A # p # ps, snd c))
      | TSParseActionTypeAccept \<Rightarrow> hd (snd c) = 0
      | TSParseActionTypeRecover \<Rightarrow> False)"

locale live_tables = certified_tables +
  assumes gotos: "list_all (\<lambda>(q, A, n). uncovers inc (\<lambda>p. has_entry rows (large_state_count L) smap runs p A) n q) reds"
begin

lemma uncovers_stack:
  "stack_ok (s # ss) us \<Longrightarrow> uncovers inc P n s \<Longrightarrow> drop n (s # ss) = p # ps \<Longrightarrow> P p"
proof (induction n arbitrary: s ss us)
  case 0
  then show ?case by simp
next
  case (Suc n)
  then obtain q qs where ss: "ss = q # qs"
    by (cases ss) auto
  with Suc.prems(1) obtain us' Z where "stack_ok (q # qs) us'" "(q, Z) \<in> set (array_of [] inc s)"
    by (auto elim: stack_okE)
  moreover from this have "uncovers inc P n q"
    using Suc.prems(2) by (auto simp: list_all_iff)
  ultimately show ?case
    using Suc.IH Suc.prems(3) ss by simp
qed

text \<open>
  Whatever action the tables hold for a reachable configuration can be taken, each of several actions
  on its own.
\<close>

lemma action_taken:
  assumes "(lr_step L)\<^sup>*\<^sup>* ([1], w @ [0]) (s # ss, t # ts)" and "\<forall>x \<in> set w. x < token_count L"
    and "a \<in> set (table_actions L s t)"
  shows "takes_action L (s # ss, t # ts) a"
proof -
  have tokens: "\<forall>x \<in> set (w @ [0]). x < token_count L"
    using assms(2) counts(1) by simp
  obtain us where us: "stack_ok (s # ss) us" "w @ [0] = concat (rev us) @ t # ts"
    using steps_ok [OF assms(1) tokens] by blast
  have t: "t < token_count L"
    using us(2) tokens by (metis in_set_conv_decomp)
  have s: "s < state_count L" "s \<noteq> 0"
    using stack_top [OF us(1)] by simp_all
  note act = actions_of_entry [OF s t assms(3)]
  show ?thesis
  proof (cases a)
    case (TSParseActionTypeShift q extra rep)
    then show ?thesis
      using act assms(3) lr_shift [of q rep L s t] by (simp add: certified_action_def takes_action_def)
  next
    case (TSParseActionTypeReduce n A prec pid)
    then have red: "(s, A, n) \<in> set reds"
      using act by (simp add: certified_action_def)
    then have "certified_walk inc G A n s []" "uncovers inc (\<lambda>p. has_entry rows (large_state_count L) smap runs p A) n s"
        "A < symbol_count L"
      using reductions gotos red_symbols by (auto simp: certified_reductions_def list_all_iff)
    moreover from this(1) obtain p ps where p: "drop n (s # ss) = p # ps" "stack_ok (p # ps) (drop n us)"
      using stack_walk [OF us(1), of A n "[]" "[]"] by auto
    ultimately have "table_value L p A \<noteq> 0"
      using has_entry_value uncovers_stack [OF us(1) _ p(1)] stack_top [OF p(2)] by blast
    then show ?thesis
      using lr_reduce [OF _ p(1) refl] p(1) assms(3) TSParseActionTypeReduce by (simp add: takes_action_def)
  qed (use act in \<open>auto simp: certified_action_def takes_action_def\<close>)
qed

end

section \<open>Reading single entries\<close>

fun complete_actions :: "TSParseActionEntry list \<Rightarrow> bool" where
  "complete_actions (Entry n r # es) \<longleftrightarrow> length es = n"
| "complete_actions _ \<longleftrightarrow> False"

context table_initialisers
begin

lemma actions_value:
  assumes "list_all (\<lambda>(k, es). complete_actions es) acts" and "array_of [] acts v \<noteq> []"
  shows "actions_at (parse_actions L) v = the_actions (tl (array_of [] acts v))"
proof -
  have "(v, array_of [] acts v) \<in> set acts"
    using array_of_mem assms(2) .
  then have "complete_actions (array_of [] acts v)"
    using assms(1) by (auto simp: list_all_iff)
  then show ?thesis
    using actions_of_run [of v] by (cases "array_of [] acts v" rule: complete_actions.cases) auto
qed

end

section \<open>Evaluating the checks\<close>

text \<open>
  The checks are evaluated by rewriting, entry by entry, with the look-ups in the initialisers as
  rewrite rules.
\<close>

lemma contiguous_keys: "contiguous k rs \<Longrightarrow> distinct (map fst rs) \<and> (\<forall>j \<in> set (map fst rs). k \<le> j)"
proof (induction k rs rule: contiguous.induct)
  case (1 k)
  then show ?case by simp
next
  case (2 k j xs rs)
  then have IH: "distinct (map fst rs)" "\<forall>i \<in> set (map fst rs). k + length xs \<le> i" "j = k" "xs \<noteq> []"
    by auto
  then have pos: "0 < length xs" by simp
  have "k < i" if "i \<in> set (map fst rs)" for i
  proof -
    have "k + length xs \<le> i"
      using IH(2) that by blast
    with pos show ?thesis by linarith
  qed
  then show ?case
    using IH(1,3) by force
qed

lemma array_of_entries:
  assumes "A = xs" and "distinct (map fst xs)"
  shows "list_all (\<lambda>(k, x). array_of d A k = x) xs"
proof -
  have "array_of d xs k = x" if "(k, x) \<in> set xs" for k x
    using array_of_distinct [OF _ assms(2), of k d] that assms(2) by (force simp: eq_key_imp_eq_value)
  then show ?thesis
    by (auto simp: assms(1) list_all_iff)
qed

lemma distinct_map_fst: "map fst xs = [0..<n] \<Longrightarrow> distinct (map fst xs)"
  by simp

lemma run_entries_entries:
  assumes "A = xs" and "contiguous 0 xs"
  shows "list_all (\<lambda>(k, x). run_entries (array_of [] A k) = run_entries x) xs"
  using array_of_entries [OF assms(1), of "[]"] contiguous_keys [OF assms(2)] by (auto simp: list_all_iff)

lemma member_entries: "A = xs \<Longrightarrow> list_all (\<lambda>x. x \<in> set A) xs"
  by (simp add: list_all_iff)

lemma run_groups_numeral [simp]:
  "run_groups (numeral n) (v # c # xs) =
     (if c \<le> length xs
      then map_option (\<lambda>es. map (\<lambda>x. (x, v)) (take c xs) @ es) (run_groups (pred_numeral n) (drop c xs))
      else None)"
  by (simp add: numeral_eq_Suc)

lemma certified_walk_numeral:
  "certified_walk inc G A (numeral n) q w \<longleftrightarrow>
     q \<noteq> 1 \<and> list_all (\<lambda>(p, Z). certified_walk inc G A (pred_numeral n) p (Z # w)) (array_of [] inc q)"
  by (simp add: numeral_eq_Suc)

lemma unit_derives_numeral:
  "unit_derives (numeral n) G A x \<longleftrightarrow>
     A = x \<or> list_ex (\<lambda>(B, ys). B = A \<and> (case ys of [y] \<Rightarrow> unit_derives (pred_numeral n) G y x | _ \<Rightarrow> False)) G"
  by (simp add: numeral_eq_Suc)

lemmas check_simps =
  check_large_def check_small_def certified_entry_def certified_action_def enters_def
  certified_reductions_def certified_walk_numeral uncovers_numeral run_groups_numeral SMALL_STATE_def

section \<open>Tables in pieces\<close>

text \<open>
  A table of many hundred runs is evaluated piece by piece: the runs follow each other across the
  pieces, the states are numbered consecutively, and a check of the whole is the checks of the
  pieces.
\<close>

fun contiguous_to :: "nat \<Rightarrow> (nat \<times> 'a list) list \<Rightarrow> nat \<Rightarrow> bool" where
  "contiguous_to k [] e \<longleftrightarrow> k = e"
| "contiguous_to k ((j, xs) # rs) e \<longleftrightarrow> j = k \<and> xs \<noteq> [] \<and> contiguous_to (k + length xs) rs e"

lemma contiguous_to_append:
  "contiguous_to k rs m \<Longrightarrow> contiguous_to m rs' e \<Longrightarrow> contiguous_to k (rs @ rs') e"
  by (induction k rs m rule: contiguous_to.induct) auto

lemma contiguous_to_contiguous: "contiguous_to k rs e \<Longrightarrow> contiguous k rs"
  by (induction k rs e rule: contiguous_to.induct) auto

definition numbered :: "nat \<Rightarrow> (nat \<times> 'a) list \<Rightarrow> nat \<Rightarrow> bool" where
  "numbered k xs e \<longleftrightarrow> k \<le> e \<and> map fst xs = [k..<e]"

lemma numbered_append: "numbered k xs m \<Longrightarrow> numbered m ys e \<Longrightarrow> numbered k (xs @ ys) e"
  using upt_add_eq_append [of k m "e - m"] by (auto simp: numbered_def)

lemma numbered_distinct: "numbered k xs e \<Longrightarrow> distinct (map fst xs)"
  by (simp add: numbered_def)

lemma numbered_states: "numbered k xs e \<Longrightarrow> list_all (\<lambda>(q, y). q < e) xs"
proof -
  assume n: "numbered k xs e"
  have "q < e" if "(q, y) \<in> set xs" for q y
  proof -
    have "q \<in> set (map fst xs)" using that by force
    then show "q < e" using n by (simp only: numbered_def set_upt) simp
  qed
  then show ?thesis by (auto simp: list_all_iff)
qed

lemma numbered_outside:
  assumes "numbered k xs e" and "q < k"
  shows "array_of [] xs q = []"
proof (rule ccontr)
  assume "array_of [] xs q \<noteq> []"
  then have "(q, array_of [] xs q) \<in> set xs" by (rule array_of_mem)
  then have "q \<in> set (map fst xs)" by force
  with assms show False by (simp only: numbered_def set_upt) simp
qed

lemma array_of_piece:
  assumes "distinct (map fst A)" and "set piece \<subseteq> set A"
  shows "list_all (\<lambda>(k, x). array_of d A k = x) piece"
  using array_of_entries [OF refl assms(1), of d] assms(2) by (auto simp: list_all_iff)

fun check_groups :: "(TSSymbol \<Rightarrow> nat \<Rightarrow> bool) \<Rightarrow> nat \<Rightarrow> nat list \<Rightarrow> bool" where
  "check_groups P 0 xs \<longleftrightarrow> xs = []"
| "check_groups P (Suc n) (v # c # xs) \<longleftrightarrow>
     c \<le> length xs \<and> list_all (\<lambda>x. P x v) (take c xs) \<and> check_groups P n (drop c xs)"
| "check_groups P (Suc n) _ \<longleftrightarrow> False"

fun check_run :: "(TSSymbol \<Rightarrow> nat \<Rightarrow> bool) \<Rightarrow> nat list \<Rightarrow> bool" where
  "check_run P [] \<longleftrightarrow> False"
| "check_run P (n # xs) \<longleftrightarrow> check_groups P n xs"

fun check_runs :: "(nat \<Rightarrow> TSSymbol \<Rightarrow> nat \<Rightarrow> bool) \<Rightarrow> nat \<Rightarrow> (nat \<times> nat list) list \<Rightarrow> bool" where
  "check_runs P s [] \<longleftrightarrow> True"
| "check_runs P s ((k, xs) # rs) \<longleftrightarrow> check_run (P s) xs \<and> check_runs P (s + 1) rs"

lemma check_groups_numeral [simp]:
  "check_groups P (numeral n) (v # c # xs) \<longleftrightarrow>
     c \<le> length xs \<and> list_all (\<lambda>x. P x v) (take c xs) \<and> check_groups P (pred_numeral n) (drop c xs)"
  by (simp add: numeral_eq_Suc)

lemma check_runs_append: "check_runs P s (rs @ rs') \<longleftrightarrow> check_runs P s rs \<and> check_runs P (s + length rs) rs'"
  by (induction P s rs rule: check_runs.induct) auto

definition runs_checked :: "(nat \<Rightarrow> TSSymbol \<Rightarrow> nat \<Rightarrow> bool) \<Rightarrow> nat \<Rightarrow> (nat \<times> nat list) list \<Rightarrow> nat \<Rightarrow> bool" where
  "runs_checked P s rs e \<longleftrightarrow> check_runs P s rs \<and> e = s + length rs"

lemma runs_checked_append:
  "runs_checked P s rs m \<Longrightarrow> runs_checked P m rs' e \<Longrightarrow> runs_checked P s (rs @ rs') e"
  by (simp add: runs_checked_def check_runs_append)

lemma check_groups_entries:
  "check_groups P n xs \<Longrightarrow> \<exists>es. run_groups n xs = Some es \<and> list_all (\<lambda>(x, v). P x v) es"
proof (induction P n xs rule: check_groups.induct)
  case (2 P n v c xs)
  then show ?case by (auto simp: list_all_iff)
qed auto

lemma check_run_entries: "check_run P xs \<Longrightarrow> \<exists>es. run_entries xs = Some es \<and> list_all (\<lambda>(x, v). P x v) es"
  by (cases xs) (auto simp: check_groups_entries)

lemma check_runs_nth: "check_runs P s rs \<Longrightarrow> i < length rs \<Longrightarrow> check_run (P (s + i)) (snd (rs ! i))"
proof (induction P s rs arbitrary: i rule: check_runs.induct)
  case (2 P s k xs rs)
  then show ?case by (cases i) (auto simp: add.commute add.left_commute)
qed simp

lemma check_small_runs:
  assumes "map fst smap = [0..<n]" and "map snd smap = map fst runs" and "contiguous 0 runs"
    and "check_runs P large runs"
  shows "check_small P large smap runs"
  unfolding check_small_def list_all_length [of _ smap]
proof (intro allI impI)
  fix i assume i: "i < length smap"
  have len: "length smap = n" "length runs = n"
    using arg_cong [OF assms(1), of length] arg_cong [OF assms(2), of length] by simp_all
  have "fst (smap ! i) = i" "snd (smap ! i) = fst (runs ! i)"
    using i len arg_cong [OF assms(1), of "\<lambda>l. l ! i"] arg_cong [OF assms(2), of "\<lambda>l. l ! i"] by simp_all
  then have entry: "smap ! i = (i, fst (runs ! i))"
    by (metis prod.collapse)
  have "array_of [] runs (fst (runs ! i)) = snd (runs ! i)"
    using array_of_entries [OF refl conjunct1 [OF contiguous_keys [OF assms(3)]], of "[]"] i len
    by (simp add: list_all_length case_prod_unfold)
  moreover obtain es where "run_entries (snd (runs ! i)) = Some es" "list_all (\<lambda>(x, v). P (large + i) x v) es"
    using check_run_entries [OF check_runs_nth [OF assms(4), of i]] i len by auto
  ultimately show "case smap ! i of (i, p) \<Rightarrow>
      (case run_entries (array_of [] runs p) of None \<Rightarrow> False | Some es \<Rightarrow> list_all (\<lambda>(x, v). P (i + large) x v) es)"
    by (simp add: entry add.commute)
qed

text \<open>The entries of a state that reductions need, all at once.\<close>

definition has_entries ::
  "(nat \<times> (TSSymbol \<times> nat) list) list \<Rightarrow> nat \<Rightarrow> (nat \<times> nat) list \<Rightarrow> (nat \<times> nat list) list \<Rightarrow>
     nat \<Rightarrow> TSSymbol list \<Rightarrow> bool" where
  "has_entries rows large smap runs s xs \<longleftrightarrow>
     (if s < large then list_all (\<lambda>x. array_of 0 (array_of [] rows s) x \<noteq> 0) xs
      else case run_entries (array_of [] runs (array_of 0 smap (s - large))) of
             None \<Rightarrow> False
           | Some es \<Rightarrow> list_all (\<lambda>x. x \<in> set (map fst es)) xs \<and> 0 \<notin> set (map snd es))"

lemma has_entries_all: "has_entries rows large smap runs s xs \<Longrightarrow> x \<in> set xs \<Longrightarrow> has_entry rows large smap runs s x"
  by (auto simp: has_entries_def has_entry_def list_all_iff split: if_splits option.splits)

lemma uncovers_mono:
  "(\<And>p. P p \<Longrightarrow> Q p) \<Longrightarrow> uncovers inc P n q \<Longrightarrow> uncovers inc Q n q"
  by (induction n arbitrary: q) (auto simp: list_all_iff)

lemma gotos_uncover:
  assumes "list_all (\<lambda>(s, xs). has_entries rows large smap runs s xs) gotos"
    and "list_all (\<lambda>(q, A, n). uncovers inc (\<lambda>p. A \<in> set (array_of [] gotos p)) n q) reds"
  shows "list_all (\<lambda>(q, A, n). uncovers inc (\<lambda>p. has_entry rows large smap runs p A) n q) reds"
proof -
  have entry: "has_entry rows large smap runs p A" if A: "A \<in> set (array_of [] gotos p)" for p A
  proof -
    have "(p, array_of [] gotos p) \<in> set gotos"
      using A by (intro array_of_mem) auto
    then show ?thesis
      using assms(1) A has_entries_all by (fastforce simp: list_all_iff)
  qed
  show ?thesis
    using assms(2) by (auto simp: list_all_iff intro!: entry elim!: uncovers_mono [rotated])
qed

section \<open>Runs\<close>

lemma lr_shift_run:
  "TSParseActionTypeShift q False False \<in> set (table_actions L s t) \<Longrightarrow>
   (lr_step L)\<^sup>*\<^sup>* (q # s # ss, ts) c \<Longrightarrow> (lr_step L)\<^sup>*\<^sup>* (s # ss, t # ts) c"
  by (blast intro: converse_rtranclp_into_rtranclp lr_shift)

lemma lr_reduce_run:
  "TSParseActionTypeReduce n A prec pid \<in> set (table_actions L s t) \<Longrightarrow>
   drop n (s # ss) = p # ps \<Longrightarrow> table_value L p A = q \<Longrightarrow> q \<noteq> 0 \<Longrightarrow>
   (lr_step L)\<^sup>*\<^sup>* (q # p # ps, t # ts) c \<Longrightarrow> (lr_step L)\<^sup>*\<^sup>* (s # ss, t # ts) c"
  by (blast intro: converse_rtranclp_into_rtranclp lr_reduce)

section \<open>Bounds and conflicts\<close>

text \<open>Every state, symbol and production an action names exists.\<close>

fun action_in_bounds :: "TSLanguage \<Rightarrow> TSParseAction \<Rightarrow> bool" where
  "action_in_bounds L (TSParseActionTypeShift q extra rep) \<longleftrightarrow> q < state_count L"
| "action_in_bounds L (TSParseActionTypeReduce n A prec pid) \<longleftrightarrow>
     token_count L \<le> A \<and> A < symbol_count L \<and> pid < production_id_count L"
| "action_in_bounds L TSParseActionTypeAccept \<longleftrightarrow> True"
| "action_in_bounds L TSParseActionTypeRecover \<longleftrightarrow> True"

text \<open>
  The runtime shifts a repetition only as an alternative to the reduction beside it, so what
  decides is the other actions.
\<close>

fun is_repetition :: "TSParseAction \<Rightarrow> bool" where
  "is_repetition (TSParseActionTypeShift q extra rep) \<longleftrightarrow> rep"
| "is_repetition _ \<longleftrightarrow> False"

definition actions_decide :: "TSParseAction list \<Rightarrow> bool" where
  "actions_decide as \<longleftrightarrow> length (filter (\<lambda>a. \<not> is_repetition a) as) = 1"

definition bounded_entry ::
  "TSLanguage \<Rightarrow> (nat \<times> TSParseActionEntry list) list \<Rightarrow> nat \<Rightarrow> TSSymbol \<Rightarrow> nat \<Rightarrow> bool" where
  "bounded_entry L acts s x v \<longleftrightarrow>
     (if x < token_count L then
        (case array_of [] acts v of
           Entry n r # es \<Rightarrow> length es = n \<and> list_all (action_in_bounds L) (the_actions es) \<and>
             actions_decide (the_actions es)
         | _ \<Rightarrow> False)
      else v < state_count L)"

context table_initialisers
begin

lemma bounded:
  assumes "check_large (bounded_entry L acts) rows"
    and "check_small (bounded_entry L acts) (large_state_count L) smap runs"
    and "s < state_count L" and "x < symbol_count L" and "table_value L s x \<noteq> 0"
  shows "if x < token_count L
    then list_all (action_in_bounds L) (table_actions L s x) \<and> actions_decide (table_actions L s x)
    else table_value L s x < state_count L"
proof -
  have "bounded_entry L acts s x (table_value L s x)"
    by (rule every_entry [OF assms])
  then show ?thesis
    using actions_of_run [of "table_value L s x"]
    by (auto simp: bounded_entry_def table_actions_def split: if_splits list.splits TSParseActionEntry.splits)
qed

end

text \<open>The same for tables with conflicts, where an entry may leave the choice to the runtime.\<close>

definition valid_run :: "TSLanguage \<Rightarrow> nat \<Rightarrow> TSParseActionEntry list \<Rightarrow> bool" where
  "valid_run L v run \<longleftrightarrow>
     (case run of
        Entry n r # es \<Rightarrow> length es = n \<and> (v \<noteq> 0 \<longrightarrow> es \<noteq> []) \<and>
          list_all (\<lambda>e. case e of Action a \<Rightarrow> action_in_bounds L a | Entry _ _ \<Rightarrow> False) es
      | _ \<Rightarrow> False)"

lemma the_actions_valid:
  "list_all (\<lambda>e. case e of Action a \<Rightarrow> P a | Entry _ _ \<Rightarrow> False) es \<Longrightarrow>
     list_all P (the_actions es) \<and> length (the_actions es) = length es"
  by (induction es rule: the_actions.induct) auto

context table_initialisers
begin

lemma valid_actions:
  assumes valid: "list_all (\<lambda>(v, run). valid_run L v run) acts" and "v \<in> set (map fst acts)" and "v \<noteq> 0"
  shows "\<exists>n r es. (v, Entry n r # es) \<in> set acts \<and> actions_at (parse_actions L) v = the_actions es \<and>
    the_actions es \<noteq> [] \<and> list_all (action_in_bounds L) (the_actions es)"
proof -
  have "(v, array_of [] acts v) \<in> set acts"
    using assms(2) conjunct1 [OF contiguous_keys [OF actions(2)]] by (rule array_of_distinct)
  moreover from this have "valid_run L v (array_of [] acts v)"
    using valid by (auto simp: list_all_iff)
  then obtain n r es where run: "array_of [] acts v = Entry n r # es" "length es = n" "es \<noteq> []"
      "list_all (\<lambda>e. case e of Action a \<Rightarrow> action_in_bounds L a | Entry _ _ \<Rightarrow> False) es"
    using assms(3) by (auto simp: valid_run_def split: list.splits TSParseActionEntry.splits)
  moreover have "the_actions es \<noteq> []" "list_all (action_in_bounds L) (the_actions es)"
    using the_actions_valid [OF run(4)] run(3) by (metis length_0_conv, blast)
  ultimately show ?thesis
    using actions_of_run [OF run(1,2)] by metis
qed

end

section \<open>Fields\<close>

text \<open>
  The fields of a production, as the runtime reads them: the slice of its production id in the map
  of field entries.
\<close>

definition production_fields :: "TSLanguage \<Rightarrow> nat \<Rightarrow> TSFieldMapEntry list" where
  "production_fields L pid =
     (case (field_map_slices L, field_map_entries L) of
        (Some slices, Some entries) \<Rightarrow>
          (let sl = slices pid in map entries [slice_index sl..<slice_index sl + slice_length sl])
      | _ \<Rightarrow> [])"

text \<open>Each field of a reduction is a field of the language, on one of the children.\<close>

definition field_ok :: "TSLanguage \<Rightarrow> nat \<Rightarrow> TSFieldMapEntry \<Rightarrow> bool" where
  "field_ok L n e \<longleftrightarrow> child_index e < n \<and> 0 < field_id e \<and> field_id e \<le> field_count L \<and>
     (\<exists>names f. field_names L = Some names \<and> names (field_id e) = Some f)"

fun fields_ok :: "TSLanguage \<Rightarrow> TSParseAction \<Rightarrow> bool" where
  "fields_ok L (TSParseActionTypeReduce n A prec pid) \<longleftrightarrow> list_all (field_ok L n) (production_fields L pid)"
| "fields_ok L _ \<longleftrightarrow> True"

context table_initialisers
begin

lemma table_action_in_run:
  assumes "check_large (bounded_entry L acts) rows"
    and "check_small (bounded_entry L acts) (large_state_count L) smap runs"
    and "s < state_count L" and "t < token_count L" and "token_count L \<le> symbol_count L"
    and "a \<in> set (table_actions L s t)"
  shows "\<exists>k es. (k, es) \<in> set acts \<and> a \<in> set (the_actions es)"
proof -
  let ?v = "table_value L s t"
  have nonzero: "?v \<noteq> 0"
  proof
    assume "?v = 0"
    moreover have "parse_actions L 0 = Entry 0 False"
      using contiguous_nth [OF actions(2,3), of 0 "Entry 0 False"] by (simp add: actions(1))
    ultimately show False
      using assms(6) by (simp add: table_actions_def actions_at_def)
  qed
  have "bounded_entry L acts s t ?v"
    by (rule every_entry [OF assms(1,2,3) _ nonzero]) (use assms(4,5) in simp)
  then obtain n r es where run: "array_of [] acts ?v = Entry n r # es" "length es = n"
    using assms(4) by (auto simp: bounded_entry_def split: list.splits TSParseActionEntry.splits)
  then have "(?v, Entry n r # es) \<in> set acts"
    using array_of_mem [of "[]" acts ?v] by simp
  moreover have "a \<in> set (the_actions (Entry n r # es))"
    using actions_of_run [OF run] assms(6) by (simp add: table_actions_def)
  ultimately show ?thesis by blast
qed

end

end
