(* ===== verification/Ccomment_Table.thy ===== *)
theory Ccomment_Table
  imports Ccomment_Lex Lr_Tables
begin

text \<open>
  The tables of the \<^verbatim>\<open>ccomment\<close> grammar
  (\<^verbatim>\<open>tree-sitter-ccomment/src/parser.c\<close>): symbol names and metadata, lex modes, parse
  table, small parse table, parse actions, external tokens, and the language object that ties them
  together. Each list is the C initialiser, designators included.
\<close>

section \<open>Sizes\<close>

abbreviation (input) cc_LANGUAGE_VERSION :: nat where "cc_LANGUAGE_VERSION \<equiv> 14"
abbreviation (input) cc_STATE_COUNT :: nat where "cc_STATE_COUNT \<equiv> 12"
abbreviation (input) cc_LARGE_STATE_COUNT :: nat where "cc_LARGE_STATE_COUNT \<equiv> 4"
abbreviation (input) cc_SYMBOL_COUNT :: nat where "cc_SYMBOL_COUNT \<equiv> 16"
abbreviation (input) cc_ALIAS_COUNT :: nat where "cc_ALIAS_COUNT \<equiv> 0"
abbreviation (input) cc_TOKEN_COUNT :: nat where "cc_TOKEN_COUNT \<equiv> 9"
abbreviation (input) cc_EXTERNAL_TOKEN_COUNT :: nat where "cc_EXTERNAL_TOKEN_COUNT \<equiv> 1"
abbreviation (input) cc_FIELD_COUNT :: nat where "cc_FIELD_COUNT \<equiv> 0"
abbreviation (input) cc_MAX_ALIAS_SEQUENCE_LENGTH :: nat where "cc_MAX_ALIAS_SEQUENCE_LENGTH \<equiv> 3"
abbreviation (input) cc_MAX_RESERVED_WORD_SET_SIZE :: nat where "cc_MAX_RESERVED_WORD_SET_SIZE \<equiv> 0"
abbreviation (input) cc_PRODUCTION_ID_COUNT :: nat where "cc_PRODUCTION_ID_COUNT \<equiv> 1"
abbreviation (input) cc_SUPERTYPE_COUNT :: nat where "cc_SUPERTYPE_COUNT \<equiv> 0"

section \<open>Symbols\<close>

definition cc_ts_symbol_names :: "(nat \<times> string) list" where
  "cc_ts_symbol_names =
    [(ts_builtin_sym_end, ''end''),
     (cc_sym_nothing, ''nothing''),
     (cc_sym_preproc_continuation_line, ''preproc_continuation_line''),
     (cc_sym_preproc_line, ''preproc_line''),
     (cc_aux_sym_define_token1, ''define_token1''),
     (cc_aux_sym_string_literal_token1, ''string_literal_token1''),
     (cc_aux_sym_char_literal_token1, ''char_literal_token1''),
     (cc_sym_comment, ''comment''),
     (cc_sym_raw_string_literal, ''raw_string_literal''),
     (cc_sym_translation_unit, ''translation_unit''),
     (cc_sym__top_level_item, ''_top_level_item''),
     (cc_sym_define, ''define''),
     (cc_sym_string_literal, ''string_literal''),
     (cc_sym_char_literal, ''char_literal''),
     (cc_aux_sym_translation_unit_repeat1, ''translation_unit_repeat1''),
     (cc_aux_sym_define_repeat1, ''define_repeat1'')]"

definition cc_ts_symbol_map :: "(nat \<times> TSSymbol) list" where
  "cc_ts_symbol_map =
    [(ts_builtin_sym_end, ts_builtin_sym_end),
     (cc_sym_nothing, cc_sym_nothing),
     (cc_sym_preproc_continuation_line, cc_sym_preproc_continuation_line),
     (cc_sym_preproc_line, cc_sym_preproc_line),
     (cc_aux_sym_define_token1, cc_aux_sym_define_token1),
     (cc_aux_sym_string_literal_token1, cc_aux_sym_string_literal_token1),
     (cc_aux_sym_char_literal_token1, cc_aux_sym_char_literal_token1),
     (cc_sym_comment, cc_sym_comment),
     (cc_sym_raw_string_literal, cc_sym_raw_string_literal),
     (cc_sym_translation_unit, cc_sym_translation_unit),
     (cc_sym__top_level_item, cc_sym__top_level_item),
     (cc_sym_define, cc_sym_define),
     (cc_sym_string_literal, cc_sym_string_literal),
     (cc_sym_char_literal, cc_sym_char_literal),
     (cc_aux_sym_translation_unit_repeat1, cc_aux_sym_translation_unit_repeat1),
     (cc_aux_sym_define_repeat1, cc_aux_sym_define_repeat1)]"

text \<open>\<^verbatim>\<open>.supertype\<close> is left out of the initialisers, so it is false.\<close>

definition cc_ts_symbol_metadata :: "(nat \<times> TSSymbolMetadata) list" where
  "cc_ts_symbol_metadata =
    [(ts_builtin_sym_end, \<lparr>visible = False, named = True, supertype = False\<rparr>),
     (cc_sym_nothing, \<lparr>visible = True, named = True, supertype = False\<rparr>),
     (cc_sym_preproc_continuation_line, \<lparr>visible = True, named = True, supertype =
       False\<rparr>),
     (cc_sym_preproc_line, \<lparr>visible = True, named = True, supertype = False\<rparr>),
     (cc_aux_sym_define_token1, \<lparr>visible = False, named = False, supertype =
       False\<rparr>),
     (cc_aux_sym_string_literal_token1, \<lparr>visible = False, named = False, supertype =
       False\<rparr>),
     (cc_aux_sym_char_literal_token1, \<lparr>visible = False, named = False, supertype =
       False\<rparr>),
     (cc_sym_comment, \<lparr>visible = True, named = True, supertype = False\<rparr>),
     (cc_sym_raw_string_literal, \<lparr>visible = True, named = True, supertype = False\<rparr>),
     (cc_sym_translation_unit, \<lparr>visible = True, named = True, supertype = False\<rparr>),
     (cc_sym__top_level_item, \<lparr>visible = False, named = True, supertype = False\<rparr>),
     (cc_sym_define, \<lparr>visible = True, named = True, supertype = False\<rparr>),
     (cc_sym_string_literal, \<lparr>visible = True, named = True, supertype = False\<rparr>),
     (cc_sym_char_literal, \<lparr>visible = True, named = True, supertype = False\<rparr>),
     (cc_aux_sym_translation_unit_repeat1, \<lparr>visible = False, named = False, supertype =
       False\<rparr>),
     (cc_aux_sym_define_repeat1, \<lparr>visible = False, named = False, supertype =
       False\<rparr>)]"

definition cc_ts_alias_sequences :: "(nat \<times> (nat \<times> TSSymbol) list) list" where
  "cc_ts_alias_sequences =
    [(0, [(0, 0)])]"

definition cc_ts_non_terminal_alias_map :: "nat list" where
  "cc_ts_non_terminal_alias_map =
    [0]"

definition cc_ts_primary_state_ids :: "(nat \<times> TSStateId) list" where
  "cc_ts_primary_state_ids =
    [(0, 0), (1, 1), (2, 2), (3, 3), (4, 4), (5, 5), (6, 6), (7, 7), (8, 8), (9, 9),
     (10, 10), (11, 11)]"

section \<open>Lex modes\<close>

definition cc_ts_lex_modes :: "(nat \<times> TSLexMode) list" where
  "cc_ts_lex_modes =
    [(0, \<lparr>lex_state = 0, external_lex_state = 1\<rparr>), (1, \<lparr>lex_state = 0,
      external_lex_state = 1\<rparr>),
     (2, \<lparr>lex_state = 0, external_lex_state = 1\<rparr>), (3, \<lparr>lex_state = 0,
       external_lex_state = 1\<rparr>),
     (4, \<lparr>lex_state = 0, external_lex_state = 1\<rparr>), (5, \<lparr>lex_state = 0,
       external_lex_state = 1\<rparr>),
     (6, \<lparr>lex_state = 0, external_lex_state = 1\<rparr>), (7, \<lparr>lex_state = 0,
       external_lex_state = 1\<rparr>),
     (8, \<lparr>lex_state = 1, external_lex_state = 0\<rparr>), (9, \<lparr>lex_state = 1,
       external_lex_state = 0\<rparr>),
     (10, \<lparr>lex_state = 1, external_lex_state = 0\<rparr>), (11, \<lparr>lex_state = 0,
       external_lex_state = 0\<rparr>)]"

section \<open>The parse table\<close>

text \<open>One definition per row of the large states, as (symbol, value) pairs.\<close>

definition cc_parse_row_0 :: "(TSSymbol \<times> nat) list" where
  "cc_parse_row_0 =
    [(ts_builtin_sym_end, 1), (cc_sym_nothing, 1),
     (cc_aux_sym_define_token1, 1), (cc_aux_sym_string_literal_token1, 1),
     (cc_aux_sym_char_literal_token1, 1), (cc_sym_comment, 1),
     (cc_sym_raw_string_literal, 1)]"

definition cc_parse_row_1 :: "(TSSymbol \<times> nat) list" where
  "cc_parse_row_1 =
    [(cc_sym_translation_unit, 11), (cc_sym__top_level_item, 2),
     (cc_sym_define, 2), (cc_sym_string_literal, 2),
     (cc_sym_char_literal, 2), (cc_aux_sym_translation_unit_repeat1, 2),
     (ts_builtin_sym_end, 3), (cc_sym_nothing, 5),
     (cc_aux_sym_define_token1, 7), (cc_aux_sym_string_literal_token1, 9),
     (cc_aux_sym_char_literal_token1, 11), (cc_sym_comment, 5),
     (cc_sym_raw_string_literal, 13)]"

definition cc_parse_row_2 :: "(TSSymbol \<times> nat) list" where
  "cc_parse_row_2 =
    [(cc_sym__top_level_item, 3), (cc_sym_define, 3),
     (cc_sym_string_literal, 3), (cc_sym_char_literal, 3),
     (cc_aux_sym_translation_unit_repeat1, 3), (ts_builtin_sym_end, 15),
     (cc_sym_nothing, 17), (cc_aux_sym_define_token1, 7),
     (cc_aux_sym_string_literal_token1, 9), (cc_aux_sym_char_literal_token1, 11),
     (cc_sym_comment, 17), (cc_sym_raw_string_literal, 19)]"

definition cc_parse_row_3 :: "(TSSymbol \<times> nat) list" where
  "cc_parse_row_3 =
    [(cc_sym__top_level_item, 3), (cc_sym_define, 3),
     (cc_sym_string_literal, 3), (cc_sym_char_literal, 3),
     (cc_aux_sym_translation_unit_repeat1, 3), (ts_builtin_sym_end, 21),
     (cc_sym_nothing, 23), (cc_aux_sym_define_token1, 26),
     (cc_aux_sym_string_literal_token1, 29), (cc_aux_sym_char_literal_token1, 32),
     (cc_sym_comment, 23), (cc_sym_raw_string_literal, 35)]"

definition cc_ts_parse_table :: "(nat \<times> (TSSymbol \<times> nat) list) list" where
  "cc_ts_parse_table =
    [(0, cc_parse_row_0), (1, cc_parse_row_1), (2, cc_parse_row_2), (3, cc_parse_row_3)]"

section \<open>The small parse table\<close>

text \<open>One definition per designated run.\<close>

definition cc_small_run_0 :: "nat list" where
  "cc_small_run_0 =
    [2, 38, 2, cc_sym_raw_string_literal, ts_builtin_sym_end, 40, 5, cc_sym_nothing,
      cc_aux_sym_define_token1, cc_aux_sym_string_literal_token1, cc_aux_sym_char_literal_token1,
      cc_sym_comment]"

definition cc_small_run_12 :: "nat list" where
  "cc_small_run_12 =
    [2, 42, 2, cc_sym_raw_string_literal, ts_builtin_sym_end, 44, 5, cc_sym_nothing,
      cc_aux_sym_define_token1, cc_aux_sym_string_literal_token1, cc_aux_sym_char_literal_token1,
      cc_sym_comment]"

definition cc_small_run_24 :: "nat list" where
  "cc_small_run_24 =
    [2, 46, 2, cc_sym_raw_string_literal, ts_builtin_sym_end, 48, 5, cc_sym_nothing,
      cc_aux_sym_define_token1, cc_aux_sym_string_literal_token1, cc_aux_sym_char_literal_token1,
      cc_sym_comment]"

definition cc_small_run_36 :: "nat list" where
  "cc_small_run_36 =
    [2, 50, 2, cc_sym_raw_string_literal, ts_builtin_sym_end, 52, 5, cc_sym_nothing,
      cc_aux_sym_define_token1, cc_aux_sym_string_literal_token1, cc_aux_sym_char_literal_token1,
      cc_sym_comment]"

definition cc_small_run_48 :: "nat list" where
  "cc_small_run_48 =
    [3, 54, 1, cc_sym_preproc_continuation_line, 56, 1, cc_sym_preproc_line, 9, 1,
      cc_aux_sym_define_repeat1]"

definition cc_small_run_58 :: "nat list" where
  "cc_small_run_58 =
    [3, 58, 1, cc_sym_preproc_continuation_line, 60, 1, cc_sym_preproc_line, 10, 1,
      cc_aux_sym_define_repeat1]"

definition cc_small_run_68 :: "nat list" where
  "cc_small_run_68 =
    [3, 62, 1, cc_sym_preproc_continuation_line, 65, 1, cc_sym_preproc_line, 10, 1,
      cc_aux_sym_define_repeat1]"

definition cc_small_run_78 :: "nat list" where
  "cc_small_run_78 =
    [1, 67, 1, ts_builtin_sym_end]"

definition cc_ts_small_parse_table :: "(nat \<times> nat list) list" where
  "cc_ts_small_parse_table =
    [(0, cc_small_run_0), (12, cc_small_run_12), (24, cc_small_run_24), (36, cc_small_run_36),
     (48, cc_small_run_48), (58, cc_small_run_58), (68, cc_small_run_68), (78, cc_small_run_78)]"

text \<open>\<^verbatim>\<open>SMALL_STATE(id)\<close> is \<^verbatim>\<open>id - LARGE_STATE_COUNT\<close>.\<close>

definition cc_ts_small_parse_table_map :: "(nat \<times> nat) list" where
  "cc_ts_small_parse_table_map =
    [(SMALL_STATE cc_LARGE_STATE_COUNT 4, 0), (SMALL_STATE cc_LARGE_STATE_COUNT 5, 12),
     (SMALL_STATE cc_LARGE_STATE_COUNT 6, 24), (SMALL_STATE cc_LARGE_STATE_COUNT 7, 36),
     (SMALL_STATE cc_LARGE_STATE_COUNT 8, 48), (SMALL_STATE cc_LARGE_STATE_COUNT 9, 58),
     (SMALL_STATE cc_LARGE_STATE_COUNT 10, 68), (SMALL_STATE cc_LARGE_STATE_COUNT 11, 78)]"

section \<open>Parse actions\<close>

definition cc_parse_actions_0 :: "(nat \<times> TSParseActionEntry list) list" where
  "cc_parse_actions_0 =
    [(0, [Entry 0 False]),
     (1, [Entry 1 False, RECOVER]),
     (3, [Entry 1 True, REDUCE cc_sym_translation_unit 0 0 0]),
     (5, [Entry 1 False, SHIFT 2]),
     (7, [Entry 1 False, SHIFT 8]),
     (9, [Entry 1 False, SHIFT 4]),
     (11, [Entry 1 False, SHIFT 5]),
     (13, [Entry 1 True, SHIFT 2]),
     (15, [Entry 1 True, REDUCE cc_sym_translation_unit 1 0 0]),
     (17, [Entry 1 False, SHIFT 3]),
     (19, [Entry 1 True, SHIFT 3]),
     (21, [Entry 1 True, REDUCE cc_aux_sym_translation_unit_repeat1 2 0 0]),
     (23, [Entry 2 False, REDUCE cc_aux_sym_translation_unit_repeat1 2 0 0, SHIFT_REPEAT 3]),
     (26, [Entry 2 False, REDUCE cc_aux_sym_translation_unit_repeat1 2 0 0, SHIFT_REPEAT 8]),
     (29, [Entry 2 False, REDUCE cc_aux_sym_translation_unit_repeat1 2 0 0, SHIFT_REPEAT 4]),
     (32, [Entry 2 False, REDUCE cc_aux_sym_translation_unit_repeat1 2 0 0, SHIFT_REPEAT 5]),
     (35, [Entry 2 True, REDUCE cc_aux_sym_translation_unit_repeat1 2 0 0, SHIFT_REPEAT 3]),
     (38, [Entry 1 True, REDUCE cc_sym_string_literal 1 0 0]),
     (40, [Entry 1 False, REDUCE cc_sym_string_literal 1 0 0]),
     (42, [Entry 1 True, REDUCE cc_sym_char_literal 1 0 0]),
     (44, [Entry 1 False, REDUCE cc_sym_char_literal 1 0 0]),
     (46, [Entry 1 True, REDUCE cc_sym_define 2 0 0]),
     (48, [Entry 1 False, REDUCE cc_sym_define 2 0 0]),
     (50, [Entry 1 True, REDUCE cc_sym_define 3 0 0]),
     (52, [Entry 1 False, REDUCE cc_sym_define 3 0 0]),
     (54, [Entry 1 False, SHIFT 9]),
     (56, [Entry 1 False, SHIFT 6]),
     (58, [Entry 1 False, SHIFT 10]),
     (60, [Entry 1 False, SHIFT 7]),
     (62, [Entry 2 False, REDUCE cc_aux_sym_define_repeat1 2 0 0, SHIFT_REPEAT 10]),
     (65, [Entry 1 False, REDUCE cc_aux_sym_define_repeat1 2 0 0]),
     (67, [Entry 1 True, ACCEPT_INPUT])]"

definition cc_ts_parse_actions :: "(nat \<times> TSParseActionEntry list) list" where
  "cc_ts_parse_actions = cc_parse_actions_0"

section \<open>External tokens and the language object\<close>

abbreviation (input) cc_ts_external_token_raw_string_literal :: nat where "cc_ts_external_token_raw_string_literal \<equiv> 0"

definition cc_ts_external_scanner_symbol_map :: "(nat \<times> TSSymbol) list" where
  "cc_ts_external_scanner_symbol_map =
    [(cc_ts_external_token_raw_string_literal, cc_sym_raw_string_literal)]"

definition cc_ts_external_scanner_states :: "(nat \<times> (nat \<times> bool) list) list" where
  "cc_ts_external_scanner_states =
    [(1, [(cc_ts_external_token_raw_string_literal, True)])]"

definition tree_sitter_ccomment :: TSLanguage where
  "tree_sitter_ccomment =
    \<lparr>abi_version = cc_LANGUAGE_VERSION,
     symbol_count = cc_SYMBOL_COUNT,
     alias_count = cc_ALIAS_COUNT,
     token_count = cc_TOKEN_COUNT,
     external_token_count = cc_EXTERNAL_TOKEN_COUNT,
     state_count = cc_STATE_COUNT,
     large_state_count = cc_LARGE_STATE_COUNT,
     production_id_count = cc_PRODUCTION_ID_COUNT,
     field_count = cc_FIELD_COUNT,
     max_alias_sequence_length = cc_MAX_ALIAS_SEQUENCE_LENGTH,
     parse_table = flat_table 0 cc_SYMBOL_COUNT cc_ts_parse_table,
     small_parse_table = designated_from 0 cc_ts_small_parse_table,
     small_parse_table_map = array_of 0 cc_ts_small_parse_table_map,
     parse_actions = designated_from (Entry 0 False) cc_ts_parse_actions,
     symbol_names = array_of [] cc_ts_symbol_names,
     field_names = None,
     field_map_slices = None,
     field_map_entries = None,
     symbol_metadata = array_of \<lparr>visible = False, named = False, supertype = False\<rparr> cc_ts_symbol_metadata,
     public_symbol_map = array_of 0 cc_ts_symbol_map,
     alias_map = list_array 0 cc_ts_non_terminal_alias_map,
     alias_sequences = flat_table 0 cc_MAX_ALIAS_SEQUENCE_LENGTH cc_ts_alias_sequences,
     lex_modes = array_of \<lparr>lex_state = 0, external_lex_state = 0\<rparr> cc_ts_lex_modes,
     language_lex = cc_ts_lex,
     keyword_lex_fn = None,
     keyword_capture_token = 0,
     external_states = flat_table False cc_EXTERNAL_TOKEN_COUNT cc_ts_external_scanner_states,
     external_symbol_map = array_of 0 cc_ts_external_scanner_symbol_map,
     primary_state_ids = array_of 0 cc_ts_primary_state_ids\<rparr>"
section \<open>The grammar\<close>

text \<open>
  The rules of \<^verbatim>\<open>tree-sitter-ccomment/grammar.js\<close>. A rule whose body is a pattern is a token; the
  tokens inside other rules go by the names the generated parser gives them.
\<close>

definition cc_rules :: "(TSSymbol \<times> grammar_rule) list" where
  "cc_rules =
    [(cc_sym_translation_unit, REPEAT cc_aux_sym_translation_unit_repeat1 (SYM
      cc_sym__top_level_item)),
     (cc_sym__top_level_item, CHOICE [SYM cc_sym_string_literal, SYM cc_sym_char_literal, SYM
      cc_sym_raw_string_literal, SYM cc_sym_comment, SYM cc_sym_nothing, SYM cc_sym_define]),
     (cc_sym_define, SEQ [SYM cc_aux_sym_define_token1, REPEAT cc_aux_sym_define_repeat1 (SYM
      cc_sym_preproc_continuation_line), SYM cc_sym_preproc_line]),
     (cc_sym_string_literal, SYM cc_aux_sym_string_literal_token1),
     (cc_sym_char_literal, SYM cc_aux_sym_char_literal_token1)]"

definition cc_grammar :: cfg where
  "cc_grammar = productions cc_rules"

lemma cc_grammar_eq:
  "cc_grammar =
    [(cc_sym_translation_unit, []),
     (cc_sym_translation_unit, [cc_aux_sym_translation_unit_repeat1]),
     (cc_aux_sym_translation_unit_repeat1, [cc_aux_sym_translation_unit_repeat1,
      cc_aux_sym_translation_unit_repeat1]),
     (cc_aux_sym_translation_unit_repeat1, [cc_sym__top_level_item]),
     (cc_sym__top_level_item, [cc_sym_string_literal]),
     (cc_sym__top_level_item, [cc_sym_char_literal]),
     (cc_sym__top_level_item, [cc_sym_raw_string_literal]),
     (cc_sym__top_level_item, [cc_sym_comment]),
     (cc_sym__top_level_item, [cc_sym_nothing]),
     (cc_sym__top_level_item, [cc_sym_define]),
     (cc_sym_define, [cc_aux_sym_define_token1, cc_sym_preproc_line]),
     (cc_sym_define, [cc_aux_sym_define_token1, cc_aux_sym_define_repeat1, cc_sym_preproc_line]),
     (cc_aux_sym_define_repeat1, [cc_aux_sym_define_repeat1, cc_aux_sym_define_repeat1]),
     (cc_aux_sym_define_repeat1, [cc_sym_preproc_continuation_line]),
     (cc_sym_string_literal, [cc_aux_sym_string_literal_token1]),
     (cc_sym_char_literal, [cc_aux_sym_char_literal_token1])]"
  by (simp add: cc_grammar_def cc_rules_def productions_def)

section \<open>The certificate\<close>

definition cc_incoming :: incoming where
  "cc_incoming =
    [(2, [(1, cc_aux_sym_translation_unit_repeat1)]),
     (3, [(2, cc_aux_sym_translation_unit_repeat1), (3, cc_aux_sym_translation_unit_repeat1)]),
     (4, [(1, cc_aux_sym_string_literal_token1), (2, cc_aux_sym_string_literal_token1), (3,
      cc_aux_sym_string_literal_token1)]),
     (5, [(1, cc_aux_sym_char_literal_token1), (2, cc_aux_sym_char_literal_token1), (3,
      cc_aux_sym_char_literal_token1)]),
     (6, [(8, cc_sym_preproc_line)]),
     (7, [(9, cc_sym_preproc_line)]),
     (8, [(1, cc_aux_sym_define_token1), (2, cc_aux_sym_define_token1), (3,
      cc_aux_sym_define_token1)]),
     (9, [(8, cc_aux_sym_define_repeat1)]),
     (10, [(9, cc_aux_sym_define_repeat1), (10, cc_aux_sym_define_repeat1)]),
     (11, [(1, cc_sym_translation_unit)])]"

definition cc_reductions :: "(TSStateId \<times> TSSymbol \<times> nat) list" where
  "cc_reductions =
    [(1, cc_sym_translation_unit, 0),
     (2, cc_sym_translation_unit, 1),
     (3, cc_aux_sym_translation_unit_repeat1, 2),
     (4, cc_sym_string_literal, 1),
     (5, cc_sym_char_literal, 1),
     (6, cc_sym_define, 2),
     (7, cc_sym_define, 3),
     (10, cc_aux_sym_define_repeat1, 2)]"

section \<open>The initialisers\<close>

lemmas cc_table_defs =
  cc_ts_parse_table_def cc_parse_row_0_def cc_parse_row_1_def cc_parse_row_2_def
  cc_parse_row_3_def

lemmas cc_run_defs =
  cc_small_run_0_def cc_small_run_12_def cc_small_run_24_def cc_small_run_36_def
  cc_small_run_48_def cc_small_run_58_def cc_small_run_68_def cc_small_run_78_def

lemmas cc_action_defs =
  cc_parse_actions_0_def

lemma cc_sizes:
  "symbol_count tree_sitter_ccomment = cc_SYMBOL_COUNT" "token_count tree_sitter_ccomment = cc_TOKEN_COUNT"
  "state_count tree_sitter_ccomment = cc_STATE_COUNT" "large_state_count tree_sitter_ccomment = cc_LARGE_STATE_COUNT"
  "production_id_count tree_sitter_ccomment = cc_PRODUCTION_ID_COUNT"
  by (simp_all add: tree_sitter_ccomment_def)

lemmas cc_runs_eq = cc_ts_small_parse_table_def [unfolded cc_run_defs]

lemmas cc_actions_eq = cc_ts_parse_actions_def [unfolded cc_action_defs action_macros append.simps]

lemma cc_runs_contiguous: "contiguous 0 cc_ts_small_parse_table"
  by (simp add: cc_runs_eq)

lemma cc_actions_contiguous: "contiguous 0 cc_ts_parse_actions"
  by (simp add: cc_actions_eq)

lemma cc_map_states: "map fst cc_ts_small_parse_table_map = [0..<cc_STATE_COUNT - cc_LARGE_STATE_COUNT]"
  by (simp add: cc_ts_small_parse_table_map_def SMALL_STATE_def upt_rec)

interpretation cc_init: table_initialisers tree_sitter_ccomment cc_ts_parse_table cc_ts_small_parse_table_map
    cc_ts_small_parse_table cc_ts_parse_actions
  by unfold_locales
    (simp_all add: tree_sitter_ccomment_def cc_runs_contiguous cc_actions_contiguous cc_map_states,
     simp add: cc_actions_eq)


lemma cc_unit_facts:
  "unit_ok cc_grammar 3 3 = True"
  "unit_ok cc_grammar 4 4 = True"
  "unit_ok cc_grammar 5 5 = True"
  "unit_ok cc_grammar 6 6 = True"
  "unit_ok cc_grammar 9 9 = True"
  "unit_ok cc_grammar 14 (Suc 0) = True"
  "unit_ok cc_grammar 14 7 = True"
  "unit_ok cc_grammar 14 8 = True"
  "unit_ok cc_grammar 14 10 = True"
  "unit_ok cc_grammar 14 11 = True"
  "unit_ok cc_grammar 14 12 = True"
  "unit_ok cc_grammar 14 13 = True"
  "unit_ok cc_grammar 14 14 = True"
  "unit_ok cc_grammar 15 2 = True"
  "unit_ok cc_grammar 15 15 = True"
  by (simp_all add: cc_grammar_eq unit_depth_def unit_derives_numeral)

lemma cc_cover_facts:
  "covers cc_grammar 9 []"
  "covers cc_grammar 9 [14]"
  "covers cc_grammar 11 [4, 3]"
  "covers cc_grammar 11 [4, 15, 3]"
  "covers cc_grammar 12 [5]"
  "covers cc_grammar 13 [6]"
  "covers cc_grammar 14 [14, 14]"
  "covers cc_grammar 15 [15, 15]"
  by (simp_all add: cc_grammar_eq covers_def unit_depth_def unit_derives_numeral)

lemmas cc_action_facts =
  array_of_entries [OF cc_actions_eq conjunct1 [OF contiguous_keys [OF cc_actions_contiguous [unfolded cc_actions_eq]]],
    of "[]", simplified]

lemmas cc_run_facts =
  run_entries_entries [OF cc_runs_eq cc_runs_contiguous [unfolded cc_runs_eq], simplified]

lemma cc_incoming_keys: "distinct (map fst cc_incoming)"
  by (simp add: cc_incoming_def)

lemmas cc_incoming_facts =
  array_of_entries [OF cc_incoming_def cc_incoming_keys [unfolded cc_incoming_def], of "[]", simplified]

lemmas cc_reduction_facts = member_entries [OF cc_reductions_def, simplified]

lemmas cc_check_simps =
  check_simps cc_unit_facts cc_cover_facts cc_action_facts cc_run_facts cc_incoming_facts cc_reduction_facts

lemmas cc_map_facts =
  array_of_entries [OF cc_ts_small_parse_table_map_def
    distinct_map_fst [OF cc_map_states, unfolded cc_ts_small_parse_table_map_def], of 0, simplified SMALL_STATE_def, simplified]

lemma cc_goto_facts:
  "has_entry cc_ts_parse_table cc_LARGE_STATE_COUNT cc_ts_small_parse_table_map cc_ts_small_parse_table (Suc 0) 9"
  "has_entry cc_ts_parse_table cc_LARGE_STATE_COUNT cc_ts_small_parse_table_map cc_ts_small_parse_table (Suc 0) 11"
  "has_entry cc_ts_parse_table cc_LARGE_STATE_COUNT cc_ts_small_parse_table_map cc_ts_small_parse_table (Suc 0) 12"
  "has_entry cc_ts_parse_table cc_LARGE_STATE_COUNT cc_ts_small_parse_table_map cc_ts_small_parse_table (Suc 0) 13"
  "has_entry cc_ts_parse_table cc_LARGE_STATE_COUNT cc_ts_small_parse_table_map cc_ts_small_parse_table (Suc 0) 14"
  "has_entry cc_ts_parse_table cc_LARGE_STATE_COUNT cc_ts_small_parse_table_map cc_ts_small_parse_table 2 11"
  "has_entry cc_ts_parse_table cc_LARGE_STATE_COUNT cc_ts_small_parse_table_map cc_ts_small_parse_table 2 12"
  "has_entry cc_ts_parse_table cc_LARGE_STATE_COUNT cc_ts_small_parse_table_map cc_ts_small_parse_table 2 13"
  "has_entry cc_ts_parse_table cc_LARGE_STATE_COUNT cc_ts_small_parse_table_map cc_ts_small_parse_table 2 14"
  "has_entry cc_ts_parse_table cc_LARGE_STATE_COUNT cc_ts_small_parse_table_map cc_ts_small_parse_table 3 11"
  "has_entry cc_ts_parse_table cc_LARGE_STATE_COUNT cc_ts_small_parse_table_map cc_ts_small_parse_table 3 12"
  "has_entry cc_ts_parse_table cc_LARGE_STATE_COUNT cc_ts_small_parse_table_map cc_ts_small_parse_table 3 13"
  "has_entry cc_ts_parse_table cc_LARGE_STATE_COUNT cc_ts_small_parse_table_map cc_ts_small_parse_table 3 14"
  "has_entry cc_ts_parse_table cc_LARGE_STATE_COUNT cc_ts_small_parse_table_map cc_ts_small_parse_table 8 15"
  "has_entry cc_ts_parse_table cc_LARGE_STATE_COUNT cc_ts_small_parse_table_map cc_ts_small_parse_table 9 15"
  "has_entry cc_ts_parse_table cc_LARGE_STATE_COUNT cc_ts_small_parse_table_map cc_ts_small_parse_table 10 15"
  by (simp_all add: has_entry_def cc_map_facts cc_run_facts cc_table_defs)
lemma cc_entries_large:
  "check_large (certified_entry cc_incoming cc_reductions cc_grammar cc_sym_translation_unit cc_TOKEN_COUNT
     cc_ts_parse_actions) cc_ts_parse_table"
  by (simp add: cc_check_simps cc_table_defs)

lemma cc_entries_small:
  "check_small (certified_entry cc_incoming cc_reductions cc_grammar cc_sym_translation_unit cc_TOKEN_COUNT
     cc_ts_parse_actions) cc_LARGE_STATE_COUNT cc_ts_small_parse_table_map cc_ts_small_parse_table"
  by (simp add: cc_check_simps cc_ts_small_parse_table_map_def)

lemma cc_walks: "certified_reductions cc_incoming cc_reductions cc_grammar"
  by (subst cc_reductions_def, simp add: cc_check_simps)

lemma cc_certificate:
  "array_of [] cc_incoming (Suc 0) = []" "array_of [] cc_incoming 0 = []"
  "list_all (\<lambda>(q, ps). q < cc_STATE_COUNT) cc_incoming"
  "list_all (\<lambda>(q, A, n). A < cc_SYMBOL_COUNT \<and> cc_TOKEN_COUNT \<le> A) cc_reductions"
  by (simp_all add: cc_incoming_def cc_reductions_def)

interpretation cc_tables: certified_tables tree_sitter_ccomment cc_ts_parse_table cc_ts_small_parse_table_map
    cc_ts_small_parse_table cc_ts_parse_actions cc_incoming cc_reductions cc_grammar cc_sym_translation_unit
  by unfold_locales (simp_all add: cc_sizes cc_entries_large cc_entries_small cc_walks cc_certificate)

lemma cc_bounded_large: "check_large (bounded_entry tree_sitter_ccomment cc_ts_parse_actions) cc_ts_parse_table"
  by (simp add: cc_check_simps bounded_entry_def actions_decide_def cc_sizes cc_table_defs)

lemma cc_bounded_small:
  "check_small (bounded_entry tree_sitter_ccomment cc_ts_parse_actions) cc_LARGE_STATE_COUNT
     cc_ts_small_parse_table_map cc_ts_small_parse_table"
  by (simp add: cc_check_simps bounded_entry_def actions_decide_def cc_sizes cc_ts_small_parse_table_map_def)

lemma cc_gotos:
  "list_all (\<lambda>(q, A, n). uncovers cc_incoming
     (\<lambda>p. has_entry cc_ts_parse_table cc_LARGE_STATE_COUNT cc_ts_small_parse_table_map cc_ts_small_parse_table p A) n q)
     cc_reductions"
  by (subst cc_reductions_def, simp add: cc_check_simps cc_goto_facts)

interpretation cc_live: live_tables tree_sitter_ccomment cc_ts_parse_table cc_ts_small_parse_table_map
    cc_ts_small_parse_table cc_ts_parse_actions cc_incoming cc_reductions cc_grammar cc_sym_translation_unit
  by unfold_locales (simp add: cc_sizes cc_gotos)

section \<open>What the comment parser accepts\<close>

lemma cc_actions_complete: "list_all (\<lambda>(k, es). complete_actions es) cc_ts_parse_actions"
  by (simp add: cc_actions_eq)

lemmas cc_read =
  table_actions_def cc_init.large_value cc_init.small_value cc_init.actions_value [OF cc_actions_complete]
  cc_sizes cc_map_facts cc_run_facts cc_action_facts cc_table_defs

text \<open>All the entries of the states the parser can reach.\<close>

lemma cc_entries:
  "table_actions tree_sitter_ccomment (Suc 0) 0 = [TSParseActionTypeReduce 0 cc_sym_translation_unit 0 0]"
  "table_actions tree_sitter_ccomment (Suc 0) (Suc 0) = [TSParseActionTypeShift 2 False False]"
  "table_actions tree_sitter_ccomment (Suc 0) cc_aux_sym_define_token1 = [TSParseActionTypeShift 8 False False]"
  "table_actions tree_sitter_ccomment (Suc 0) cc_aux_sym_string_literal_token1 = [TSParseActionTypeShift 4 False False]"
  "table_actions tree_sitter_ccomment (Suc 0) cc_aux_sym_char_literal_token1 = [TSParseActionTypeShift 5 False False]"
  "table_actions tree_sitter_ccomment (Suc 0) cc_sym_comment = [TSParseActionTypeShift 2 False False]"
  "table_actions tree_sitter_ccomment (Suc 0) cc_sym_raw_string_literal = [TSParseActionTypeShift 2 False False]"
  "table_value tree_sitter_ccomment (Suc 0) cc_sym_translation_unit = 11"
  "table_value tree_sitter_ccomment (Suc 0) cc_sym__top_level_item = 2"
  "table_value tree_sitter_ccomment (Suc 0) cc_sym_define = 2"
  "table_value tree_sitter_ccomment (Suc 0) cc_sym_string_literal = 2"
  "table_value tree_sitter_ccomment (Suc 0) cc_sym_char_literal = 2"
  "table_value tree_sitter_ccomment (Suc 0) cc_aux_sym_translation_unit_repeat1 = 2"
  "table_actions tree_sitter_ccomment 2 0 = [TSParseActionTypeReduce 1 cc_sym_translation_unit 0 0]"
  "table_actions tree_sitter_ccomment 2 (Suc 0) = [TSParseActionTypeShift 3 False False]"
  "table_actions tree_sitter_ccomment 2 cc_aux_sym_define_token1 = [TSParseActionTypeShift 8 False False]"
  "table_actions tree_sitter_ccomment 2 cc_aux_sym_string_literal_token1 = [TSParseActionTypeShift 4 False False]"
  "table_actions tree_sitter_ccomment 2 cc_aux_sym_char_literal_token1 = [TSParseActionTypeShift 5 False False]"
  "table_actions tree_sitter_ccomment 2 cc_sym_comment = [TSParseActionTypeShift 3 False False]"
  "table_actions tree_sitter_ccomment 2 cc_sym_raw_string_literal = [TSParseActionTypeShift 3 False False]"
  "table_value tree_sitter_ccomment 2 cc_sym__top_level_item = 3"
  "table_value tree_sitter_ccomment 2 cc_sym_define = 3"
  "table_value tree_sitter_ccomment 2 cc_sym_string_literal = 3"
  "table_value tree_sitter_ccomment 2 cc_sym_char_literal = 3"
  "table_value tree_sitter_ccomment 2 cc_aux_sym_translation_unit_repeat1 = 3"
  "table_actions tree_sitter_ccomment 3 0 = [TSParseActionTypeReduce 2 cc_aux_sym_translation_unit_repeat1 0 0]"
  "table_actions tree_sitter_ccomment 3 (Suc 0) = [TSParseActionTypeReduce 2 cc_aux_sym_translation_unit_repeat1 0 0, TSParseActionTypeShift 3 False True]"
  "table_actions tree_sitter_ccomment 3 cc_aux_sym_define_token1 = [TSParseActionTypeReduce 2 cc_aux_sym_translation_unit_repeat1 0 0, TSParseActionTypeShift 8 False True]"
  "table_actions tree_sitter_ccomment 3 cc_aux_sym_string_literal_token1 = [TSParseActionTypeReduce 2 cc_aux_sym_translation_unit_repeat1 0 0, TSParseActionTypeShift 4 False True]"
  "table_actions tree_sitter_ccomment 3 cc_aux_sym_char_literal_token1 = [TSParseActionTypeReduce 2 cc_aux_sym_translation_unit_repeat1 0 0, TSParseActionTypeShift 5 False True]"
  "table_actions tree_sitter_ccomment 3 cc_sym_comment = [TSParseActionTypeReduce 2 cc_aux_sym_translation_unit_repeat1 0 0, TSParseActionTypeShift 3 False True]"
  "table_actions tree_sitter_ccomment 3 cc_sym_raw_string_literal = [TSParseActionTypeReduce 2 cc_aux_sym_translation_unit_repeat1 0 0, TSParseActionTypeShift 3 False True]"
  "table_value tree_sitter_ccomment 3 cc_sym__top_level_item = 3"
  "table_value tree_sitter_ccomment 3 cc_sym_define = 3"
  "table_value tree_sitter_ccomment 3 cc_sym_string_literal = 3"
  "table_value tree_sitter_ccomment 3 cc_sym_char_literal = 3"
  "table_value tree_sitter_ccomment 3 cc_aux_sym_translation_unit_repeat1 = 3"
  "table_actions tree_sitter_ccomment 4 0 = [TSParseActionTypeReduce 1 cc_sym_string_literal 0 0]"
  "table_actions tree_sitter_ccomment 4 (Suc 0) = [TSParseActionTypeReduce 1 cc_sym_string_literal 0 0]"
  "table_actions tree_sitter_ccomment 4 cc_aux_sym_define_token1 = [TSParseActionTypeReduce 1 cc_sym_string_literal 0 0]"
  "table_actions tree_sitter_ccomment 4 cc_aux_sym_string_literal_token1 = [TSParseActionTypeReduce 1 cc_sym_string_literal 0 0]"
  "table_actions tree_sitter_ccomment 4 cc_aux_sym_char_literal_token1 = [TSParseActionTypeReduce 1 cc_sym_string_literal 0 0]"
  "table_actions tree_sitter_ccomment 4 cc_sym_comment = [TSParseActionTypeReduce 1 cc_sym_string_literal 0 0]"
  "table_actions tree_sitter_ccomment 4 cc_sym_raw_string_literal = [TSParseActionTypeReduce 1 cc_sym_string_literal 0 0]"
  "table_actions tree_sitter_ccomment 5 0 = [TSParseActionTypeReduce 1 cc_sym_char_literal 0 0]"
  "table_actions tree_sitter_ccomment 5 (Suc 0) = [TSParseActionTypeReduce 1 cc_sym_char_literal 0 0]"
  "table_actions tree_sitter_ccomment 5 cc_aux_sym_define_token1 = [TSParseActionTypeReduce 1 cc_sym_char_literal 0 0]"
  "table_actions tree_sitter_ccomment 5 cc_aux_sym_string_literal_token1 = [TSParseActionTypeReduce 1 cc_sym_char_literal 0 0]"
  "table_actions tree_sitter_ccomment 5 cc_aux_sym_char_literal_token1 = [TSParseActionTypeReduce 1 cc_sym_char_literal 0 0]"
  "table_actions tree_sitter_ccomment 5 cc_sym_comment = [TSParseActionTypeReduce 1 cc_sym_char_literal 0 0]"
  "table_actions tree_sitter_ccomment 5 cc_sym_raw_string_literal = [TSParseActionTypeReduce 1 cc_sym_char_literal 0 0]"
  "table_actions tree_sitter_ccomment 6 0 = [TSParseActionTypeReduce 2 cc_sym_define 0 0]"
  "table_actions tree_sitter_ccomment 6 (Suc 0) = [TSParseActionTypeReduce 2 cc_sym_define 0 0]"
  "table_actions tree_sitter_ccomment 6 cc_aux_sym_define_token1 = [TSParseActionTypeReduce 2 cc_sym_define 0 0]"
  "table_actions tree_sitter_ccomment 6 cc_aux_sym_string_literal_token1 = [TSParseActionTypeReduce 2 cc_sym_define 0 0]"
  "table_actions tree_sitter_ccomment 6 cc_aux_sym_char_literal_token1 = [TSParseActionTypeReduce 2 cc_sym_define 0 0]"
  "table_actions tree_sitter_ccomment 6 cc_sym_comment = [TSParseActionTypeReduce 2 cc_sym_define 0 0]"
  "table_actions tree_sitter_ccomment 6 cc_sym_raw_string_literal = [TSParseActionTypeReduce 2 cc_sym_define 0 0]"
  "table_actions tree_sitter_ccomment 7 0 = [TSParseActionTypeReduce 3 cc_sym_define 0 0]"
  "table_actions tree_sitter_ccomment 7 (Suc 0) = [TSParseActionTypeReduce 3 cc_sym_define 0 0]"
  "table_actions tree_sitter_ccomment 7 cc_aux_sym_define_token1 = [TSParseActionTypeReduce 3 cc_sym_define 0 0]"
  "table_actions tree_sitter_ccomment 7 cc_aux_sym_string_literal_token1 = [TSParseActionTypeReduce 3 cc_sym_define 0 0]"
  "table_actions tree_sitter_ccomment 7 cc_aux_sym_char_literal_token1 = [TSParseActionTypeReduce 3 cc_sym_define 0 0]"
  "table_actions tree_sitter_ccomment 7 cc_sym_comment = [TSParseActionTypeReduce 3 cc_sym_define 0 0]"
  "table_actions tree_sitter_ccomment 7 cc_sym_raw_string_literal = [TSParseActionTypeReduce 3 cc_sym_define 0 0]"
  "table_actions tree_sitter_ccomment 8 cc_sym_preproc_continuation_line = [TSParseActionTypeShift 9 False False]"
  "table_actions tree_sitter_ccomment 8 cc_sym_preproc_line = [TSParseActionTypeShift 6 False False]"
  "table_value tree_sitter_ccomment 8 cc_aux_sym_define_repeat1 = 9"
  "table_actions tree_sitter_ccomment 9 cc_sym_preproc_continuation_line = [TSParseActionTypeShift 10 False False]"
  "table_actions tree_sitter_ccomment 9 cc_sym_preproc_line = [TSParseActionTypeShift 7 False False]"
  "table_value tree_sitter_ccomment 9 cc_aux_sym_define_repeat1 = 10"
  "table_actions tree_sitter_ccomment 10 cc_sym_preproc_continuation_line = [TSParseActionTypeReduce 2 cc_aux_sym_define_repeat1 0 0, TSParseActionTypeShift 10 False True]"
  "table_actions tree_sitter_ccomment 10 cc_sym_preproc_line = [TSParseActionTypeReduce 2 cc_aux_sym_define_repeat1 0 0]"
  "table_value tree_sitter_ccomment 10 cc_aux_sym_define_repeat1 = 10"
  "table_actions tree_sitter_ccomment 11 0 = [TSParseActionTypeAccept]"
  by (simp_all add: cc_read)

text \<open>The tokens that can follow a top-level item, and the token sequences of one.\<close>

definition cc_follow :: "TSSymbol set" where
  "cc_follow = {ts_builtin_sym_end, cc_sym_nothing, cc_aux_sym_define_token1,
     cc_aux_sym_string_literal_token1, cc_aux_sym_char_literal_token1, cc_sym_comment, cc_sym_raw_string_literal}"

inductive cc_item :: "TSSymbol list \<Rightarrow> bool" where
  item_token: "t \<in> {cc_sym_nothing, cc_sym_comment, cc_sym_raw_string_literal,
    cc_aux_sym_string_literal_token1, cc_aux_sym_char_literal_token1} \<Longrightarrow> cc_item [t]"
| item_define: "cc_item (cc_aux_sym_define_token1 #
    replicate n cc_sym_preproc_continuation_line @ [cc_sym_preproc_line])"

lemma cc_item_nonempty: "cc_item w \<Longrightarrow> w \<noteq> [] \<and> hd w \<in> cc_follow"
  by (induction rule: cc_item.induct) (auto simp: cc_follow_def)

text \<open>The entries used, state by state. States 1 and 2 begin items; an item ends in state 2 or 3.\<close>

definition cc_after :: "TSStateId \<Rightarrow> TSStateId" where
  "cc_after s = (if s = 1 then 2 else 3)"

lemma cc_begin:
  assumes "s \<in> {1, 2}"
  shows "t \<in> {cc_sym_nothing, cc_sym_comment, cc_sym_raw_string_literal} \<Longrightarrow>
      TSParseActionTypeShift (cc_after s) False False \<in> set (table_actions tree_sitter_ccomment s t)"
    and "TSParseActionTypeShift 4 False False \<in>
      set (table_actions tree_sitter_ccomment s cc_aux_sym_string_literal_token1)"
    and "TSParseActionTypeShift 5 False False \<in>
      set (table_actions tree_sitter_ccomment s cc_aux_sym_char_literal_token1)"
    and "TSParseActionTypeShift 8 False False \<in>
      set (table_actions tree_sitter_ccomment s cc_aux_sym_define_token1)"
    and "A \<in> {cc_sym_string_literal, cc_sym_char_literal, cc_sym_define} \<Longrightarrow>
      table_value tree_sitter_ccomment s A = cc_after s"
  using assms by (auto simp: cc_entries cc_after_def)

lemma cc_finish:
  assumes "t \<in> cc_follow"
  shows "TSParseActionTypeReduce 1 cc_sym_string_literal 0 0 \<in> set (table_actions tree_sitter_ccomment 4 t)"
    and "TSParseActionTypeReduce 1 cc_sym_char_literal 0 0 \<in> set (table_actions tree_sitter_ccomment 5 t)"
    and "TSParseActionTypeReduce 2 cc_sym_define 0 0 \<in> set (table_actions tree_sitter_ccomment 6 t)"
    and "TSParseActionTypeReduce 3 cc_sym_define 0 0 \<in> set (table_actions tree_sitter_ccomment 7 t)"
    and "TSParseActionTypeReduce 2 cc_aux_sym_translation_unit_repeat1 0 0 \<in>
      set (table_actions tree_sitter_ccomment 3 t)"
  using assms by (auto simp: cc_entries cc_follow_def)

lemma cc_define_entries:
  "TSParseActionTypeShift 6 False False \<in> set (table_actions tree_sitter_ccomment 8 cc_sym_preproc_line)"
  "TSParseActionTypeShift 9 False False \<in> set (table_actions tree_sitter_ccomment 8 cc_sym_preproc_continuation_line)"
  "TSParseActionTypeShift 7 False False \<in> set (table_actions tree_sitter_ccomment 9 cc_sym_preproc_line)"
  "TSParseActionTypeShift 10 False False \<in> set (table_actions tree_sitter_ccomment 9 cc_sym_preproc_continuation_line)"
  "TSParseActionTypeReduce 2 cc_aux_sym_define_repeat1 0 0 \<in>
     set (table_actions tree_sitter_ccomment 10 cc_sym_preproc_line)"
  "TSParseActionTypeReduce 2 cc_aux_sym_define_repeat1 0 0 \<in>
     set (table_actions tree_sitter_ccomment 10 cc_sym_preproc_continuation_line)"
  "table_value tree_sitter_ccomment 8 cc_aux_sym_define_repeat1 = 9"
  by (simp_all add: cc_entries)

lemma cc_end_entries:
  "TSParseActionTypeReduce 0 cc_sym_translation_unit 0 0 \<in> set (table_actions tree_sitter_ccomment 1 0)"
  "TSParseActionTypeReduce 1 cc_sym_translation_unit 0 0 \<in> set (table_actions tree_sitter_ccomment 2 0)"
  "table_value tree_sitter_ccomment 1 cc_sym_translation_unit = 11"
  "table_value tree_sitter_ccomment 1 cc_aux_sym_translation_unit_repeat1 = 2"
  "TSParseActionTypeAccept \<in> set (table_actions tree_sitter_ccomment 11 0)"
  by (simp_all add: cc_entries)

abbreviation cc_runs :: "lr_config \<Rightarrow> lr_config \<Rightarrow> bool" where
  "cc_runs \<equiv> (lr_step tree_sitter_ccomment)\<^sup>*\<^sup>*"

lemma cc_shift:
  "TSParseActionTypeShift q False False \<in> set (table_actions tree_sitter_ccomment s t) \<Longrightarrow>
   cc_runs (q # s # ss, ts) c \<Longrightarrow> cc_runs (s # ss, t # ts) c"
  by (blast intro: converse_rtranclp_into_rtranclp lr_shift)

lemma cc_reduce:
  "TSParseActionTypeReduce n A 0 0 \<in> set (table_actions tree_sitter_ccomment s t) \<Longrightarrow>
   drop n (s # ss) = p # ps \<Longrightarrow> table_value tree_sitter_ccomment p A = q \<Longrightarrow> q \<noteq> 0 \<Longrightarrow>
   cc_runs (q # p # ps, t # ts) c \<Longrightarrow> cc_runs (s # ss, t # ts) c"
  by (blast intro: converse_rtranclp_into_rtranclp lr_reduce)

lemma cc_continuations:
  "cc_runs (9 # 8 # ss, replicate n cc_sym_preproc_continuation_line @ cc_sym_preproc_line # ts) (7 # 9 # 8 # ss, ts)"
proof (induction n)
  case 0
  show ?case
    using cc_shift [OF cc_define_entries(3)] by simp
next
  case (Suc n)
  have "TSParseActionTypeReduce 2 cc_aux_sym_define_repeat1 0 0 \<in>
      set (table_actions tree_sitter_ccomment 10 (hd (replicate n cc_sym_preproc_continuation_line @ [cc_sym_preproc_line])))"
    by (cases n) (simp_all add: cc_define_entries)
  then have "cc_runs (10 # 9 # 8 # ss, replicate n cc_sym_preproc_continuation_line @ cc_sym_preproc_line # ts) (7 # 9 # 8 # ss, ts)"
    using Suc.IH cc_reduce [OF _ _ cc_define_entries(7), of 2 10 _ "9 # 8 # ss" ss] by (cases n) auto
  then show ?case
    using cc_shift [OF cc_define_entries(4)] by simp
qed

lemma cc_item_run:
  assumes "cc_item w" and "s \<in> {1, 2}" and "t \<in> cc_follow"
  shows "cc_runs (s # ss, w @ t # ts) (cc_after s # s # ss, t # ts)"
  using assms(1)
proof cases
  case (item_token u)
  have after: "cc_after s \<noteq> 0"
    by (simp add: cc_after_def)
  have literal: "cc_runs (q # s # ss, t # ts) (cc_after s # s # ss, t # ts)"
    if "TSParseActionTypeReduce 1 A 0 0 \<in> set (table_actions tree_sitter_ccomment q t)"
      "A \<in> {cc_sym_string_literal, cc_sym_char_literal, cc_sym_define}" for q A
    by (rule cc_reduce [OF that(1) _ cc_begin(5) [OF assms(2) that(2)] after rtranclp.rtrancl_refl]) simp
  consider "u \<in> {cc_sym_nothing, cc_sym_comment, cc_sym_raw_string_literal}" |
    "u = cc_aux_sym_string_literal_token1" | "u = cc_aux_sym_char_literal_token1"
    using item_token(2) by blast
  then show ?thesis
  proof cases
    case 1
    then show ?thesis
      using cc_shift [OF cc_begin(1) [OF assms(2)]] item_token(1) by simp
  next
    case 2
    then show ?thesis
      using cc_shift [OF cc_begin(2) [OF assms(2)] literal [OF cc_finish(1) [OF assms(3)]]] item_token(1) by simp
  next
    case 3
    then show ?thesis
      using cc_shift [OF cc_begin(3) [OF assms(2)] literal [OF cc_finish(2) [OF assms(3)]]] item_token(1) by simp
  qed
next
  case (item_define n)
  have after: "cc_after s \<noteq> 0"
    by (simp add: cc_after_def)
  note goto = cc_begin(5) [OF assms(2), of cc_sym_define]
  have "cc_runs (8 # s # ss, replicate n cc_sym_preproc_continuation_line @ cc_sym_preproc_line # t # ts)
      (cc_after s # s # ss, t # ts)"
  proof (cases n)
    case 0
    have "cc_runs (6 # 8 # s # ss, t # ts) (cc_after s # s # ss, t # ts)"
      by (rule cc_reduce [OF cc_finish(3) [OF assms(3)] _ goto after rtranclp.rtrancl_refl]) simp_all
    then show ?thesis
      using cc_shift [OF cc_define_entries(1)] 0 by simp
  next
    case (Suc m)
    have "cc_runs (7 # 9 # 8 # s # ss, t # ts) (cc_after s # s # ss, t # ts)"
      by (rule cc_reduce [OF cc_finish(4) [OF assms(3)] _ goto after rtranclp.rtrancl_refl]) simp_all
    then have "cc_runs (9 # 8 # s # ss, replicate m cc_sym_preproc_continuation_line @ cc_sym_preproc_line # t # ts)
        (cc_after s # s # ss, t # ts)"
      by (rule rtranclp_trans [OF cc_continuations])
    then show ?thesis
      using cc_shift [OF cc_define_entries(2)] Suc by simp
  qed
  then show ?thesis
    using cc_shift [OF cc_begin(4) [OF assms(2)]] item_define by simp
qed

lemma cc_items_next:
  assumes "\<forall>w \<in> set ws. cc_item w"
  obtains t ts where "concat ws @ [0] = t # ts" "t \<in> cc_follow"
proof (cases ws)
  case Nil
  then show ?thesis
    using that by (simp add: cc_follow_def)
next
  case (Cons v vs)
  then have "v \<noteq> [] \<and> hd v \<in> cc_follow"
    using assms cc_item_nonempty by simp
  then show ?thesis
    using that Cons by (cases v) auto
qed

lemma cc_items_run:
  "\<forall>w \<in> set ws. cc_item w \<Longrightarrow> cc_runs ([2, 1], concat ws @ [0]) ([2, 1], [0])"
proof (induction ws)
  case Nil
  then show ?case by simp
next
  case (Cons w ws)
  obtain t ts where t: "concat ws @ [0] = t # ts" "t \<in> cc_follow"
    using cc_items_next [of ws] Cons.prems by auto
  have "cc_runs ([2, 1], w @ t # ts) ([3, 2, 1], t # ts)"
    using cc_item_run [of w 2 t "[1]" ts] Cons.prems t(2) by (simp add: cc_after_def)
  moreover have "cc_runs ([3, 2, 1], t # ts) ([2, 1], t # ts)"
    by (rule cc_reduce [OF cc_finish(5) [OF t(2)] _ cc_end_entries(4) _ rtranclp.rtrancl_refl]) simp_all
  ultimately show ?case
    using Cons.IH Cons.prems t(1) by (auto elim: rtranclp_trans)
qed

section \<open>Properties\<close>

text \<open>
  Property C2. The comment parser is sound: every sequence of tokens its tables accept is derivable
  in the grammar of \<^verbatim>\<open>grammar.js\<close> from \<^verbatim>\<open>translation_unit\<close>.
\<close>

theorem cc_parser_sound:
  assumes "lr_accepts tree_sitter_ccomment w" and "\<forall>t \<in> set w. t < token_count tree_sitter_ccomment"
  shows "derives cc_grammar [cc_sym_translation_unit] w"
  by (rule cc_tables.accepted_derivable [OF assms])

lemma cc_accepts_items:
  assumes "\<forall>w \<in> set ws. cc_item w"
  shows "lr_accepts tree_sitter_ccomment (concat ws)"
proof (cases ws)
  case Nil
  have "cc_runs ([1], [0]) ([11, 1], [0])"
    by (rule cc_reduce [OF cc_end_entries(1) _ cc_end_entries(3) _ rtranclp.rtrancl_refl]) simp_all
  then show ?thesis
    unfolding lr_accepts_def using cc_end_entries(5) Nil by auto
next
  case (Cons w vs)
  obtain t ts where t: "concat vs @ [0] = t # ts" "t \<in> cc_follow"
    using cc_items_next [of vs] assms Cons by auto
  have "cc_runs ([1], w @ t # ts) ([2, 1], t # ts)"
    using cc_item_run [of w 1 t "[]" ts] assms Cons t(2) by (simp add: cc_after_def)
  then have "cc_runs ([1], concat ws @ [0]) ([2, 1], [0])"
    using cc_items_run [of vs] assms Cons t(1) by (auto elim: rtranclp_trans)
  moreover have "cc_runs ([2, 1], [0]) ([11, 1], [0])"
    by (rule cc_reduce [OF cc_end_entries(2) _ cc_end_entries(3) _ rtranclp.rtrancl_refl]) simp_all
  ultimately show ?thesis
    unfolding lr_accepts_def using cc_end_entries(5) by (blast intro: rtranclp_trans)
qed

theorem cc_parser_sound_witness:
  "derives cc_grammar [cc_sym_translation_unit] [cc_sym_comment, cc_sym_nothing]"
proof -
  have "lr_accepts tree_sitter_ccomment (concat [[cc_sym_comment], [cc_sym_nothing]])"
    by (rule cc_accepts_items) (auto intro: item_token)
  then show ?thesis
    using cc_parser_sound [of "[cc_sym_comment, cc_sym_nothing]"] by (simp add: cc_sizes)
qed

text \<open>
  Property C35. The comment parser is complete for top-level items: any sequence of comments, string,
  character and raw string literals, other text and macro definitions (with any number of
  continuation lines) is accepted; no order of items is a syntax error.
\<close>

theorem cc_parser_accepts_items:
  assumes "\<forall>w \<in> set ws. cc_item w"
  shows "lr_accepts tree_sitter_ccomment (concat ws)"
  by (rule cc_accepts_items [OF assms])

theorem cc_parser_accepts_items_witness:
  "lr_accepts tree_sitter_ccomment (concat [[cc_sym_comment], [cc_aux_sym_define_token1, cc_sym_preproc_line]])"
proof (rule cc_parser_accepts_items)
  show "\<forall>w \<in> set [[cc_sym_comment], [cc_aux_sym_define_token1, cc_sym_preproc_line]]. cc_item w"
    using item_token [of cc_sym_comment] item_define [of 0] by simp
qed

text \<open>
  The comment parser's tables are well formed and free of conflicts: each non-zero entry
  of a token decodes to actions that name existing states, non-terminals and productions, of which
  exactly one is not a repetition; each non-zero entry of a non-terminal is an existing state.
\<close>

theorem cc_tables_well_formed:
  assumes "s < state_count tree_sitter_ccomment" and "x < symbol_count tree_sitter_ccomment"
    and "table_value tree_sitter_ccomment s x \<noteq> 0"
  shows "if x < token_count tree_sitter_ccomment
    then list_all (action_in_bounds tree_sitter_ccomment) (table_actions tree_sitter_ccomment s x) \<and>
      actions_decide (table_actions tree_sitter_ccomment s x)
    else table_value tree_sitter_ccomment s x < state_count tree_sitter_ccomment"
  using cc_init.bounded [OF cc_bounded_large _ assms] cc_bounded_small by (simp add: cc_sizes)

theorem cc_tables_well_formed_witness:
  "actions_decide (table_actions tree_sitter_ccomment 3 cc_sym_comment)"
  using cc_tables_well_formed [of 3 cc_sym_comment] by (simp add: cc_sizes cc_entries) (simp add: cc_read)

text \<open>
  The comment parser never gets stuck on its own tables: in every configuration reached
  from the start, each action the tables hold for the next token can be taken; in particular the
  stack is deep enough for every reduction and the uncovered state has an entry for the symbol.
\<close>

theorem cc_parser_not_stuck:
  assumes "(lr_step tree_sitter_ccomment)\<^sup>*\<^sup>* ([1], w @ [0]) (s # ss, t # ts)"
    and "\<forall>x \<in> set w. x < token_count tree_sitter_ccomment"
    and "a \<in> set (table_actions tree_sitter_ccomment s t)"
  shows "takes_action tree_sitter_ccomment (s # ss, t # ts) a"
  by (rule cc_live.action_taken [OF assms])

theorem cc_parser_not_stuck_witness:
  "takes_action tree_sitter_ccomment ([4, 1], [0]) (TSParseActionTypeReduce 1 cc_sym_string_literal 0 0)"
proof (rule cc_parser_not_stuck)
  show "cc_runs ([1], [cc_aux_sym_string_literal_token1] @ [0]) ([4, 1], [0])"
    using cc_shift [OF cc_begin(2) [of 1] rtranclp.rtrancl_refl] by simp
  show "TSParseActionTypeReduce 1 cc_sym_string_literal 0 0 \<in> set (table_actions tree_sitter_ccomment 4 0)"
    by (rule cc_finish(1)) (simp add: cc_follow_def)
qed (simp_all add: cc_sizes)

end
