(* ===== verification/Preproc_Lex.thy ===== *)
theory Preproc_Lex
  imports Token_Regex
begin

text \<open>
  The generated lexer of the \<^verbatim>\<open>preproc\<close> grammar: \<^verbatim>\<open>ts_lex\<close> of
  \<^verbatim>\<open>tree-sitter-preproc/src/parser.c\<close>, one definition per
  \<^verbatim>\<open>case\<close>, and the symbols of its \<^verbatim>\<open>enum ts_symbol_identifiers\<close>.
\<close>

section \<open>Symbols\<close>

abbreviation (input) pp_sym_identifier :: TSSymbol where "pp_sym_identifier \<equiv> 1"
abbreviation (input) pp_sym_nothing :: TSSymbol where "pp_sym_nothing \<equiv> 2"
abbreviation (input) pp_sym_preproc_continuation_line :: TSSymbol where "pp_sym_preproc_continuation_line \<equiv> 3"
abbreviation (input) pp_sym_preproc_line :: TSSymbol where "pp_sym_preproc_line \<equiv> 4"
abbreviation (input) pp_aux_sym_preproc_include_token1 :: TSSymbol where "pp_aux_sym_preproc_include_token1 \<equiv> 5"
abbreviation (input) pp_anon_sym_LT :: TSSymbol where "pp_anon_sym_LT \<equiv> 6"
abbreviation (input) pp_anon_sym_GT :: TSSymbol where "pp_anon_sym_GT \<equiv> 7"
abbreviation (input) pp_sym_path :: TSSymbol where "pp_sym_path \<equiv> 8"
abbreviation (input) pp_aux_sym_define_token1 :: TSSymbol where "pp_aux_sym_define_token1 \<equiv> 9"
abbreviation (input) pp_anon_sym_LF :: TSSymbol where "pp_anon_sym_LF \<equiv> 10"
abbreviation (input) pp_aux_sym_preproc_if_token1 :: TSSymbol where "pp_aux_sym_preproc_if_token1 \<equiv> 11"
abbreviation (input) pp_aux_sym_preproc_if_token2 :: TSSymbol where "pp_aux_sym_preproc_if_token2 \<equiv> 12"
abbreviation (input) pp_aux_sym_preproc_elif_token1 :: TSSymbol where "pp_aux_sym_preproc_elif_token1 \<equiv> 13"
abbreviation (input) pp_aux_sym_preproc_else_token1 :: TSSymbol where "pp_aux_sym_preproc_else_token1 \<equiv> 14"
abbreviation (input) pp_aux_sym_undef_token1 :: TSSymbol where "pp_aux_sym_undef_token1 \<equiv> 15"
abbreviation (input) pp_aux_sym_preproc_nothing_token1 :: TSSymbol where "pp_aux_sym_preproc_nothing_token1 \<equiv> 16"
abbreviation (input) pp_aux_sym_string_literal_token1 :: TSSymbol where "pp_aux_sym_string_literal_token1 \<equiv> 17"
abbreviation (input) pp_aux_sym_char_literal_token1 :: TSSymbol where "pp_aux_sym_char_literal_token1 \<equiv> 18"
abbreviation (input) pp_sym_integer_literal :: TSSymbol where "pp_sym_integer_literal \<equiv> 19"
abbreviation (input) pp_sym_comment :: TSSymbol where "pp_sym_comment \<equiv> 20"
abbreviation (input) pp_sym_raw_string_literal :: TSSymbol where "pp_sym_raw_string_literal \<equiv> 21"
abbreviation (input) pp_sym_translation_unit :: TSSymbol where "pp_sym_translation_unit \<equiv> 22"
abbreviation (input) pp_sym__top_level_item :: TSSymbol where "pp_sym__top_level_item \<equiv> 23"
abbreviation (input) pp_sym_preproc_include :: TSSymbol where "pp_sym_preproc_include \<equiv> 24"
abbreviation (input) pp_sym_define :: TSSymbol where "pp_sym_define \<equiv> 25"
abbreviation (input) pp_sym_preproc_if :: TSSymbol where "pp_sym_preproc_if \<equiv> 26"
abbreviation (input) pp_sym_preproc_elif :: TSSymbol where "pp_sym_preproc_elif \<equiv> 27"
abbreviation (input) pp_sym_preproc_else :: TSSymbol where "pp_sym_preproc_else \<equiv> 28"
abbreviation (input) pp_sym_undef :: TSSymbol where "pp_sym_undef \<equiv> 29"
abbreviation (input) pp_sym_preproc_nothing :: TSSymbol where "pp_sym_preproc_nothing \<equiv> 30"
abbreviation (input) pp_sym_string_literal :: TSSymbol where "pp_sym_string_literal \<equiv> 31"
abbreviation (input) pp_sym_char_literal :: TSSymbol where "pp_sym_char_literal \<equiv> 32"
abbreviation (input) pp_aux_sym_translation_unit_repeat1 :: TSSymbol where "pp_aux_sym_translation_unit_repeat1 \<equiv> 33"
abbreviation (input) pp_aux_sym_define_repeat1 :: TSSymbol where "pp_aux_sym_define_repeat1 \<equiv> 34"
abbreviation (input) pp_aux_sym_preproc_if_repeat1 :: TSSymbol where "pp_aux_sym_preproc_if_repeat1 \<equiv> 35"

section \<open>The cases of the switch\<close>

definition pp_lex_0 :: "bool \<Rightarrow> codepoint \<Rightarrow> lex_case" where
  "pp_lex_0 eof la = (None,
      if eof then ADVANCE 73 else
      case ADVANCE_MAP [(CH_DQUOTE, 15), (CH_HASH, 23), (CH_QUOTE, 16), (CH_SLASH, 17), (CH_LT,
        96), (CH_GT, 97), (CH_TAB, 13), (CH_SPACE, 13)] la of Some st \<Rightarrow> ADVANCE st |
        None \<Rightarrow> (
      if (CH_LF \<le> la \<and> la \<le> CH_CR) then SKIP 72 else
      if (CH_0 \<le> la \<and> la \<le> CH_9) then ADVANCE 110 else
      if (CH_A \<le> la \<and> la \<le> CH_Z) \<or> la = CH_UNDERSCORE \<or> (CH_a \<le> la
        \<and> la \<le> CH_z) then ADVANCE 74 else END_STATE))"

definition pp_lex_1 :: "bool \<Rightarrow> codepoint \<Rightarrow> lex_case" where
  "pp_lex_1 eof la = (None,
      if la = CH_LF then ADVANCE 102 else
      if la = CH_d then ADVANCE 3 else
      if la = CH_n then ADVANCE 2 else
      if la \<noteq> 0 then ADVANCE 5 else END_STATE)"

definition pp_lex_2 :: "bool \<Rightarrow> codepoint \<Rightarrow> lex_case" where
  "pp_lex_2 eof la = (None,
      if la = CH_LF then ADVANCE 102 else
      if la = CH_d then ADVANCE 3 else
      if la \<noteq> 0 then ADVANCE 5 else END_STATE)"

definition pp_lex_3 :: "bool \<Rightarrow> codepoint \<Rightarrow> lex_case" where
  "pp_lex_3 eof la = (None,
      if la = CH_LF then ADVANCE 102 else
      if la = CH_e then ADVANCE 4 else
      if la \<noteq> 0 then ADVANCE 5 else END_STATE)"

definition pp_lex_4 :: "bool \<Rightarrow> codepoint \<Rightarrow> lex_case" where
  "pp_lex_4 eof la = (None,
      if la = CH_LF then ADVANCE 102 else
      if la = CH_f then ADVANCE 5 else
      if la \<noteq> 0 then ADVANCE 5 else END_STATE)"

definition pp_lex_5 :: "bool \<Rightarrow> codepoint \<Rightarrow> lex_case" where
  "pp_lex_5 eof la = (None,
      if la = CH_LF then ADVANCE 102 else
      if la \<noteq> 0 then ADVANCE 5 else END_STATE)"

definition pp_lex_6 :: "bool \<Rightarrow> codepoint \<Rightarrow> lex_case" where
  "pp_lex_6 eof la = (None,
      if la = CH_LF then ADVANCE 104 else
      if la \<noteq> 0 then ADVANCE 6 else END_STATE)"

definition pp_lex_7 :: "bool \<Rightarrow> codepoint \<Rightarrow> lex_case" where
  "pp_lex_7 eof la = (None,
      if la = CH_LF then ADVANCE 105 else
      if la \<noteq> 0 then ADVANCE 7 else END_STATE)"

definition pp_lex_8 :: "bool \<Rightarrow> codepoint \<Rightarrow> lex_case" where
  "pp_lex_8 eof la = (None,
      if la = CH_LF then ADVANCE 103 else
      if la \<noteq> 0 then ADVANCE 8 else END_STATE)"

definition pp_lex_9 :: "bool \<Rightarrow> codepoint \<Rightarrow> lex_case" where
  "pp_lex_9 eof la = (None,
      if la = CH_LF then ADVANCE 101 else
      if (CH_TAB \<le> la \<and> la \<le> CH_CR) \<or> la = CH_SPACE then SKIP 9 else END_STATE)"

definition pp_lex_10 :: "bool \<Rightarrow> codepoint \<Rightarrow> lex_case" where
  "pp_lex_10 eof la = (None,
      case ADVANCE_MAP [(CH_LF, 78), (CH_DQUOTE, 15), (CH_HASH, 83), (CH_QUOTE, 16), (CH_SLASH,
        82), (CH_R, 75), (CH_TAB, 79), (CH_SPACE, 79)] la of Some st \<Rightarrow> ADVANCE st |
        None \<Rightarrow> (
      if (CH_VT \<le> la \<and> la \<le> CH_CR) then ADVANCE 78 else
      if (CH_0 \<le> la \<and> la \<le> CH_9) then ADVANCE 110 else
      if la \<noteq> 0 then ADVANCE 89 else END_STATE))"

definition pp_lex_11 :: "bool \<Rightarrow> codepoint \<Rightarrow> lex_case" where
  "pp_lex_11 eof la = (None,
      case ADVANCE_MAP [(CH_LF, 80), (CH_DQUOTE, 15), (CH_HASH, 85), (CH_QUOTE, 16), (CH_SLASH,
        82), (CH_R, 75), (CH_TAB, 81), (CH_SPACE, 81)] la of Some st \<Rightarrow> ADVANCE st |
        None \<Rightarrow> (
      if (CH_VT \<le> la \<and> la \<le> CH_CR) then ADVANCE 80 else
      if (CH_0 \<le> la \<and> la \<le> CH_9) then ADVANCE 110 else
      if la \<noteq> 0 then ADVANCE 89 else END_STATE))"

definition pp_lex_12 :: "bool \<Rightarrow> codepoint \<Rightarrow> lex_case" where
  "pp_lex_12 eof la = (None,
      if la = CH_CR then ADVANCE 114 else
      if la \<noteq> 0 then ADVANCE 113 else END_STATE)"

definition pp_lex_13 :: "bool \<Rightarrow> codepoint \<Rightarrow> lex_case" where
  "pp_lex_13 eof la = (None,
      case ADVANCE_MAP [(CH_DQUOTE, 15), (CH_HASH, 23), (CH_QUOTE, 16), (CH_SLASH, 17), (CH_LT,
        96), (CH_GT, 97), (CH_TAB, 13), (CH_SPACE, 13)] la of Some st \<Rightarrow> ADVANCE st |
        None \<Rightarrow> (
      if (CH_LF \<le> la \<and> la \<le> CH_CR) then SKIP 14 else
      if (CH_A \<le> la \<and> la \<le> CH_Z) \<or> la = CH_UNDERSCORE \<or> (CH_a \<le> la
        \<and> la \<le> CH_z) then ADVANCE 74 else END_STATE))"

definition pp_lex_14 :: "bool \<Rightarrow> codepoint \<Rightarrow> lex_case" where
  "pp_lex_14 eof la = (None,
      case ADVANCE_MAP [(CH_DQUOTE, 15), (CH_HASH, 24), (CH_QUOTE, 16), (CH_SLASH, 17), (CH_LT,
        96), (CH_GT, 97), (CH_TAB, 14), (CH_SPACE, 14)] la of Some st \<Rightarrow> ADVANCE st |
        None \<Rightarrow> (
      if (CH_LF \<le> la \<and> la \<le> CH_CR) then SKIP 14 else
      if (CH_A \<le> la \<and> la \<le> CH_Z) \<or> la = CH_UNDERSCORE \<or> (CH_a \<le> la
        \<and> la \<le> CH_z) then ADVANCE 74 else END_STATE))"

definition pp_lex_15 :: "bool \<Rightarrow> codepoint \<Rightarrow> lex_case" where
  "pp_lex_15 eof la = (None,
      if la = CH_DQUOTE then ADVANCE 108 else
      if la = CH_BACKSLASH then ADVANCE 69 else
      if la \<noteq> 0 then ADVANCE 15 else END_STATE)"

definition pp_lex_16 :: "bool \<Rightarrow> codepoint \<Rightarrow> lex_case" where
  "pp_lex_16 eof la = (None,
      if la = CH_QUOTE then ADVANCE 109 else
      if la = CH_BACKSLASH then ADVANCE 70 else
      if la \<noteq> 0 then ADVANCE 16 else END_STATE)"

definition pp_lex_17 :: "bool \<Rightarrow> codepoint \<Rightarrow> lex_case" where
  "pp_lex_17 eof la = (None,
      if la = CH_STAR then ADVANCE 19 else
      if la = CH_SLASH then ADVANCE 113 else END_STATE)"

definition pp_lex_18 :: "bool \<Rightarrow> codepoint \<Rightarrow> lex_case" where
  "pp_lex_18 eof la = (None,
      if la = CH_STAR then ADVANCE 18 else
      if la = CH_SLASH then ADVANCE 112 else
      if la \<noteq> 0 then ADVANCE 19 else END_STATE)"

definition pp_lex_19 :: "bool \<Rightarrow> codepoint \<Rightarrow> lex_case" where
  "pp_lex_19 eof la = (None,
      if la = CH_STAR then ADVANCE 18 else
      if la \<noteq> 0 then ADVANCE 19 else END_STATE)"

definition pp_lex_20 :: "bool \<Rightarrow> codepoint \<Rightarrow> lex_case" where
  "pp_lex_20 eof la = (None,
      if la = CH_a then ADVANCE 44 else END_STATE)"

definition pp_lex_21 :: "bool \<Rightarrow> codepoint \<Rightarrow> lex_case" where
  "pp_lex_21 eof la = (None,
      if la = CH_a then ADVANCE 107 else END_STATE)"

definition pp_lex_22 :: "bool \<Rightarrow> codepoint \<Rightarrow> lex_case" where
  "pp_lex_22 eof la = (None,
      if la = CH_c then ADVANCE 51 else END_STATE)"

definition pp_lex_23 :: "bool \<Rightarrow> codepoint \<Rightarrow> lex_case" where
  "pp_lex_23 eof la = (None,
      case ADVANCE_MAP [(CH_d, 32), (CH_e, 50), (CH_i, 39), (CH_l, 45), (CH_p, 60), (CH_u, 55),
        (CH_TAB, 23), (CH_SPACE, 23)] la of Some st \<Rightarrow> ADVANCE st | None \<Rightarrow>
        ( END_STATE))"

definition pp_lex_24 :: "bool \<Rightarrow> codepoint \<Rightarrow> lex_case" where
  "pp_lex_24 eof la = (None,
      if la = CH_d then ADVANCE 32 else
      if la = CH_e then ADVANCE 49 else
      if la = CH_i then ADVANCE 39 else
      if la = CH_u then ADVANCE 55 else
      if la = CH_TAB \<or> la = CH_SPACE then ADVANCE 24 else END_STATE)"

definition pp_lex_25 :: "bool \<Rightarrow> codepoint \<Rightarrow> lex_case" where
  "pp_lex_25 eof la = (None,
      case ADVANCE_MAP [(CH_d, 32), (CH_e, 54), (CH_i, 39), (CH_l, 45), (CH_p, 60), (CH_u, 55),
        (CH_TAB, 25), (CH_SPACE, 25)] la of Some st \<Rightarrow> ADVANCE st | None \<Rightarrow>
        ( END_STATE))"

definition pp_lex_26 :: "bool \<Rightarrow> codepoint \<Rightarrow> lex_case" where
  "pp_lex_26 eof la = (None,
      case ADVANCE_MAP [(CH_d, 32), (CH_e, 63), (CH_i, 39), (CH_l, 45), (CH_p, 60), (CH_u, 55),
        (CH_TAB, 26), (CH_SPACE, 26)] la of Some st \<Rightarrow> ADVANCE st | None \<Rightarrow>
        ( END_STATE))"

definition pp_lex_27 :: "bool \<Rightarrow> codepoint \<Rightarrow> lex_case" where
  "pp_lex_27 eof la = (None,
      if la = CH_d then ADVANCE 32 else
      if la = CH_e then ADVANCE 53 else
      if la = CH_i then ADVANCE 39 else
      if la = CH_u then ADVANCE 55 else
      if la = CH_TAB \<or> la = CH_SPACE then ADVANCE 27 else END_STATE)"

definition pp_lex_28 :: "bool \<Rightarrow> codepoint \<Rightarrow> lex_case" where
  "pp_lex_28 eof la = (None,
      if la = CH_d then ADVANCE 32 else
      if la = CH_i then ADVANCE 39 else
      if la = CH_u then ADVANCE 55 else
      if la = CH_TAB \<or> la = CH_SPACE then ADVANCE 28 else END_STATE)"

definition pp_lex_29 :: "bool \<Rightarrow> codepoint \<Rightarrow> lex_case" where
  "pp_lex_29 eof la = (None,
      if la = CH_d then ADVANCE 48 else END_STATE)"

definition pp_lex_30 :: "bool \<Rightarrow> codepoint \<Rightarrow> lex_case" where
  "pp_lex_30 eof la = (None,
      if la = CH_d then ADVANCE 34 else END_STATE)"

definition pp_lex_31 :: "bool \<Rightarrow> codepoint \<Rightarrow> lex_case" where
  "pp_lex_31 eof la = (None,
      if la = CH_d then ADVANCE 37 else END_STATE)"

definition pp_lex_32 :: "bool \<Rightarrow> codepoint \<Rightarrow> lex_case" where
  "pp_lex_32 eof la = (None,
      if la = CH_e then ADVANCE 43 else END_STATE)"

definition pp_lex_33 :: "bool \<Rightarrow> codepoint \<Rightarrow> lex_case" where
  "pp_lex_33 eof la = (None,
      if la = CH_e then ADVANCE 107 else END_STATE)"

definition pp_lex_34 :: "bool \<Rightarrow> codepoint \<Rightarrow> lex_case" where
  "pp_lex_34 eof la = (None,
      if la = CH_e then ADVANCE 94 else END_STATE)"

definition pp_lex_35 :: "bool \<Rightarrow> codepoint \<Rightarrow> lex_case" where
  "pp_lex_35 eof la = (None,
      if la = CH_e then ADVANCE 66 else END_STATE)"

definition pp_lex_36 :: "bool \<Rightarrow> codepoint \<Rightarrow> lex_case" where
  "pp_lex_36 eof la = (None,
      if la = CH_e then ADVANCE 68 else END_STATE)"

definition pp_lex_37 :: "bool \<Rightarrow> codepoint \<Rightarrow> lex_case" where
  "pp_lex_37 eof la = (None,
      if la = CH_e then ADVANCE 40 else END_STATE)"

definition pp_lex_38 :: "bool \<Rightarrow> codepoint \<Rightarrow> lex_case" where
  "pp_lex_38 eof la = (None,
      if la = CH_e then ADVANCE 7 else END_STATE)"

definition pp_lex_39 :: "bool \<Rightarrow> codepoint \<Rightarrow> lex_case" where
  "pp_lex_39 eof la = (None,
      if la = CH_f then ADVANCE 1 else
      if la = CH_n then ADVANCE 22 else END_STATE)"

definition pp_lex_40 :: "bool \<Rightarrow> codepoint \<Rightarrow> lex_case" where
  "pp_lex_40 eof la = (None,
      if la = CH_f then ADVANCE 67 else END_STATE)"

definition pp_lex_41 :: "bool \<Rightarrow> codepoint \<Rightarrow> lex_case" where
  "pp_lex_41 eof la = (None,
      if la = CH_f then ADVANCE 6 else END_STATE)"

definition pp_lex_42 :: "bool \<Rightarrow> codepoint \<Rightarrow> lex_case" where
  "pp_lex_42 eof la = (None,
      if la = CH_f then ADVANCE 8 else END_STATE)"

definition pp_lex_43 :: "bool \<Rightarrow> codepoint \<Rightarrow> lex_case" where
  "pp_lex_43 eof la = (None,
      if la = CH_f then ADVANCE 47 else END_STATE)"

definition pp_lex_44 :: "bool \<Rightarrow> codepoint \<Rightarrow> lex_case" where
  "pp_lex_44 eof la = (None,
      if la = CH_g then ADVANCE 52 else END_STATE)"

definition pp_lex_45 :: "bool \<Rightarrow> codepoint \<Rightarrow> lex_case" where
  "pp_lex_45 eof la = (None,
      if la = CH_i then ADVANCE 56 else END_STATE)"

definition pp_lex_46 :: "bool \<Rightarrow> codepoint \<Rightarrow> lex_case" where
  "pp_lex_46 eof la = (None,
      if la = CH_i then ADVANCE 41 else
      if la = CH_s then ADVANCE 38 else END_STATE)"

definition pp_lex_47 :: "bool \<Rightarrow> codepoint \<Rightarrow> lex_case" where
  "pp_lex_47 eof la = (None,
      if la = CH_i then ADVANCE 57 else END_STATE)"

definition pp_lex_48 :: "bool \<Rightarrow> codepoint \<Rightarrow> lex_case" where
  "pp_lex_48 eof la = (None,
      if la = CH_i then ADVANCE 42 else END_STATE)"

definition pp_lex_49 :: "bool \<Rightarrow> codepoint \<Rightarrow> lex_case" where
  "pp_lex_49 eof la = (None,
      if la = CH_l then ADVANCE 46 else
      if la = CH_n then ADVANCE 29 else END_STATE)"

definition pp_lex_50 :: "bool \<Rightarrow> codepoint \<Rightarrow> lex_case" where
  "pp_lex_50 eof la = (None,
      if la = CH_l then ADVANCE 46 else
      if la = CH_n then ADVANCE 29 else
      if la = CH_r then ADVANCE 61 else END_STATE)"

definition pp_lex_51 :: "bool \<Rightarrow> codepoint \<Rightarrow> lex_case" where
  "pp_lex_51 eof la = (None,
      if la = CH_l then ADVANCE 65 else END_STATE)"

definition pp_lex_52 :: "bool \<Rightarrow> codepoint \<Rightarrow> lex_case" where
  "pp_lex_52 eof la = (None,
      if la = CH_m then ADVANCE 21 else END_STATE)"

definition pp_lex_53 :: "bool \<Rightarrow> codepoint \<Rightarrow> lex_case" where
  "pp_lex_53 eof la = (None,
      if la = CH_n then ADVANCE 29 else END_STATE)"

definition pp_lex_54 :: "bool \<Rightarrow> codepoint \<Rightarrow> lex_case" where
  "pp_lex_54 eof la = (None,
      if la = CH_n then ADVANCE 29 else
      if la = CH_r then ADVANCE 61 else END_STATE)"

definition pp_lex_55 :: "bool \<Rightarrow> codepoint \<Rightarrow> lex_case" where
  "pp_lex_55 eof la = (None,
      if la = CH_n then ADVANCE 31 else END_STATE)"

definition pp_lex_56 :: "bool \<Rightarrow> codepoint \<Rightarrow> lex_case" where
  "pp_lex_56 eof la = (None,
      if la = CH_n then ADVANCE 33 else END_STATE)"

definition pp_lex_57 :: "bool \<Rightarrow> codepoint \<Rightarrow> lex_case" where
  "pp_lex_57 eof la = (None,
      if la = CH_n then ADVANCE 36 else END_STATE)"

definition pp_lex_58 :: "bool \<Rightarrow> codepoint \<Rightarrow> lex_case" where
  "pp_lex_58 eof la = (None,
      if la = CH_n then ADVANCE 35 else END_STATE)"

definition pp_lex_59 :: "bool \<Rightarrow> codepoint \<Rightarrow> lex_case" where
  "pp_lex_59 eof la = (None,
      if la = CH_o then ADVANCE 62 else END_STATE)"

definition pp_lex_60 :: "bool \<Rightarrow> codepoint \<Rightarrow> lex_case" where
  "pp_lex_60 eof la = (None,
      if la = CH_r then ADVANCE 20 else END_STATE)"

definition pp_lex_61 :: "bool \<Rightarrow> codepoint \<Rightarrow> lex_case" where
  "pp_lex_61 eof la = (None,
      if la = CH_r then ADVANCE 59 else END_STATE)"

definition pp_lex_62 :: "bool \<Rightarrow> codepoint \<Rightarrow> lex_case" where
  "pp_lex_62 eof la = (None,
      if la = CH_r then ADVANCE 107 else END_STATE)"

definition pp_lex_63 :: "bool \<Rightarrow> codepoint \<Rightarrow> lex_case" where
  "pp_lex_63 eof la = (None,
      if la = CH_r then ADVANCE 61 else END_STATE)"

definition pp_lex_64 :: "bool \<Rightarrow> codepoint \<Rightarrow> lex_case" where
  "pp_lex_64 eof la = (None,
      if la = CH_t then ADVANCE 95 else END_STATE)"

definition pp_lex_65 :: "bool \<Rightarrow> codepoint \<Rightarrow> lex_case" where
  "pp_lex_65 eof la = (None,
      if la = CH_u then ADVANCE 30 else END_STATE)"

definition pp_lex_66 :: "bool \<Rightarrow> codepoint \<Rightarrow> lex_case" where
  "pp_lex_66 eof la = (None,
      if la = CH_x then ADVANCE 64 else END_STATE)"

definition pp_lex_67 :: "bool \<Rightarrow> codepoint \<Rightarrow> lex_case" where
  "pp_lex_67 eof la = (None,
      if la = CH_TAB \<or> la = CH_SPACE then ADVANCE 106 else END_STATE)"

definition pp_lex_68 :: "bool \<Rightarrow> codepoint \<Rightarrow> lex_case" where
  "pp_lex_68 eof la = (None,
      if la = CH_TAB \<or> la = CH_SPACE then ADVANCE 100 else END_STATE)"

definition pp_lex_69 :: "bool \<Rightarrow> codepoint \<Rightarrow> lex_case" where
  "pp_lex_69 eof la = (None,
      if la \<noteq> 0 then ADVANCE 15 else END_STATE)"

definition pp_lex_70 :: "bool \<Rightarrow> codepoint \<Rightarrow> lex_case" where
  "pp_lex_70 eof la = (None,
      if la \<noteq> 0 then ADVANCE 16 else END_STATE)"

definition pp_lex_71 :: "bool \<Rightarrow> codepoint \<Rightarrow> lex_case" where
  "pp_lex_71 eof la = (None,
      if eof then ADVANCE 73 else
      case ADVANCE_MAP [(CH_LF, 77), (CH_DQUOTE, 15), (CH_HASH, 86), (CH_QUOTE, 16), (CH_SLASH,
        82), (CH_R, 75), (CH_TAB, 76), (CH_SPACE, 76)] la of Some st \<Rightarrow> ADVANCE st |
        None \<Rightarrow> (
      if (CH_VT \<le> la \<and> la \<le> CH_CR) then ADVANCE 77 else
      if (CH_0 \<le> la \<and> la \<le> CH_9) then ADVANCE 110 else
      if la \<noteq> 0 then ADVANCE 89 else END_STATE))"

definition pp_lex_72 :: "bool \<Rightarrow> codepoint \<Rightarrow> lex_case" where
  "pp_lex_72 eof la = (None,
      if eof then ADVANCE 73 else
      case ADVANCE_MAP [(CH_DQUOTE, 15), (CH_HASH, 24), (CH_QUOTE, 16), (CH_SLASH, 17), (CH_LT,
        96), (CH_GT, 97), (CH_TAB, 14), (CH_SPACE, 14)] la of Some st \<Rightarrow> ADVANCE st |
        None \<Rightarrow> (
      if (CH_LF \<le> la \<and> la \<le> CH_CR) then SKIP 72 else
      if (CH_A \<le> la \<and> la \<le> CH_Z) \<or> la = CH_UNDERSCORE \<or> (CH_a \<le> la
        \<and> la \<le> CH_z) then ADVANCE 74 else END_STATE))"

definition pp_lex_73 :: "bool \<Rightarrow> codepoint \<Rightarrow> lex_case" where
  "pp_lex_73 eof la = (Some ts_builtin_sym_end, END_STATE)"

definition pp_lex_74 :: "bool \<Rightarrow> codepoint \<Rightarrow> lex_case" where
  "pp_lex_74 eof la = (Some pp_sym_identifier,
      if (CH_0 \<le> la \<and> la \<le> CH_9) \<or> (CH_A \<le> la \<and> la \<le> CH_Z) \<or> la
        = CH_UNDERSCORE \<or> (CH_a \<le> la \<and> la \<le> CH_z) then ADVANCE 74 else
        END_STATE)"

definition pp_lex_75 :: "bool \<Rightarrow> codepoint \<Rightarrow> lex_case" where
  "pp_lex_75 eof la = (Some pp_sym_nothing, END_STATE)"

definition pp_lex_76 :: "bool \<Rightarrow> codepoint \<Rightarrow> lex_case" where
  "pp_lex_76 eof la = (Some pp_sym_nothing,
      if la = CH_LF then ADVANCE 77 else
      if la = CH_HASH then ADVANCE 86 else
      if la = CH_SLASH then ADVANCE 82 else
      if la = CH_R then ADVANCE 75 else
      if la = CH_TAB \<or> la = CH_SPACE then ADVANCE 76 else
      if (CH_VT \<le> la \<and> la \<le> CH_CR) then ADVANCE 77 else
      if la \<noteq> 0 \<and> la \<noteq> CH_DQUOTE \<and> la \<noteq> CH_HASH \<and> la \<noteq>
        CH_QUOTE \<and> (la < CH_SLASH \<or> CH_9 < la) then ADVANCE 89 else END_STATE)"

definition pp_lex_77 :: "bool \<Rightarrow> codepoint \<Rightarrow> lex_case" where
  "pp_lex_77 eof la = (Some pp_sym_nothing,
      if la = CH_LF then ADVANCE 77 else
      if la = CH_HASH then ADVANCE 88 else
      if la = CH_SLASH then ADVANCE 82 else
      if la = CH_R then ADVANCE 75 else
      if la = CH_TAB \<or> la = CH_SPACE then ADVANCE 77 else
      if (CH_VT \<le> la \<and> la \<le> CH_CR) then ADVANCE 77 else
      if la \<noteq> 0 \<and> la \<noteq> CH_DQUOTE \<and> la \<noteq> CH_HASH \<and> la \<noteq>
        CH_QUOTE \<and> (la < CH_SLASH \<or> CH_9 < la) then ADVANCE 89 else END_STATE)"

definition pp_lex_78 :: "bool \<Rightarrow> codepoint \<Rightarrow> lex_case" where
  "pp_lex_78 eof la = (Some pp_sym_nothing,
      if la = CH_LF then ADVANCE 78 else
      if la = CH_HASH then ADVANCE 84 else
      if la = CH_SLASH then ADVANCE 82 else
      if la = CH_R then ADVANCE 75 else
      if la = CH_TAB \<or> la = CH_SPACE then ADVANCE 78 else
      if (CH_VT \<le> la \<and> la \<le> CH_CR) then ADVANCE 78 else
      if la \<noteq> 0 \<and> la \<noteq> CH_DQUOTE \<and> la \<noteq> CH_HASH \<and> la \<noteq>
        CH_QUOTE \<and> (la < CH_SLASH \<or> CH_9 < la) then ADVANCE 89 else END_STATE)"

definition pp_lex_79 :: "bool \<Rightarrow> codepoint \<Rightarrow> lex_case" where
  "pp_lex_79 eof la = (Some pp_sym_nothing,
      if la = CH_LF then ADVANCE 78 else
      if la = CH_HASH then ADVANCE 83 else
      if la = CH_SLASH then ADVANCE 82 else
      if la = CH_R then ADVANCE 75 else
      if la = CH_TAB \<or> la = CH_SPACE then ADVANCE 79 else
      if (CH_VT \<le> la \<and> la \<le> CH_CR) then ADVANCE 78 else
      if la \<noteq> 0 \<and> la \<noteq> CH_DQUOTE \<and> la \<noteq> CH_HASH \<and> la \<noteq>
        CH_QUOTE \<and> (la < CH_SLASH \<or> CH_9 < la) then ADVANCE 89 else END_STATE)"

definition pp_lex_80 :: "bool \<Rightarrow> codepoint \<Rightarrow> lex_case" where
  "pp_lex_80 eof la = (Some pp_sym_nothing,
      if la = CH_LF then ADVANCE 80 else
      if la = CH_HASH then ADVANCE 87 else
      if la = CH_SLASH then ADVANCE 82 else
      if la = CH_R then ADVANCE 75 else
      if la = CH_TAB \<or> la = CH_SPACE then ADVANCE 80 else
      if (CH_VT \<le> la \<and> la \<le> CH_CR) then ADVANCE 80 else
      if la \<noteq> 0 \<and> la \<noteq> CH_DQUOTE \<and> la \<noteq> CH_HASH \<and> la \<noteq>
        CH_QUOTE \<and> (la < CH_SLASH \<or> CH_9 < la) then ADVANCE 89 else END_STATE)"

definition pp_lex_81 :: "bool \<Rightarrow> codepoint \<Rightarrow> lex_case" where
  "pp_lex_81 eof la = (Some pp_sym_nothing,
      if la = CH_LF then ADVANCE 80 else
      if la = CH_HASH then ADVANCE 85 else
      if la = CH_SLASH then ADVANCE 82 else
      if la = CH_R then ADVANCE 75 else
      if la = CH_TAB \<or> la = CH_SPACE then ADVANCE 81 else
      if (CH_VT \<le> la \<and> la \<le> CH_CR) then ADVANCE 80 else
      if la \<noteq> 0 \<and> la \<noteq> CH_DQUOTE \<and> la \<noteq> CH_HASH \<and> la \<noteq>
        CH_QUOTE \<and> (la < CH_SLASH \<or> CH_9 < la) then ADVANCE 89 else END_STATE)"

definition pp_lex_82 :: "bool \<Rightarrow> codepoint \<Rightarrow> lex_case" where
  "pp_lex_82 eof la = (Some pp_sym_nothing,
      if la = CH_STAR then ADVANCE 19 else
      if la = CH_SLASH then ADVANCE 113 else END_STATE)"

definition pp_lex_83 :: "bool \<Rightarrow> codepoint \<Rightarrow> lex_case" where
  "pp_lex_83 eof la = (Some pp_sym_nothing,
      case ADVANCE_MAP [(CH_d, 32), (CH_e, 50), (CH_i, 39), (CH_l, 45), (CH_p, 60), (CH_u, 55),
        (CH_TAB, 23), (CH_SPACE, 23)] la of Some st \<Rightarrow> ADVANCE st | None \<Rightarrow>
        ( END_STATE))"

definition pp_lex_84 :: "bool \<Rightarrow> codepoint \<Rightarrow> lex_case" where
  "pp_lex_84 eof la = (Some pp_sym_nothing,
      if la = CH_d then ADVANCE 32 else
      if la = CH_e then ADVANCE 49 else
      if la = CH_i then ADVANCE 39 else
      if la = CH_u then ADVANCE 55 else
      if la = CH_TAB \<or> la = CH_SPACE then ADVANCE 24 else END_STATE)"

definition pp_lex_85 :: "bool \<Rightarrow> codepoint \<Rightarrow> lex_case" where
  "pp_lex_85 eof la = (Some pp_sym_nothing,
      case ADVANCE_MAP [(CH_d, 32), (CH_e, 54), (CH_i, 39), (CH_l, 45), (CH_p, 60), (CH_u, 55),
        (CH_TAB, 25), (CH_SPACE, 25)] la of Some st \<Rightarrow> ADVANCE st | None \<Rightarrow>
        ( END_STATE))"

definition pp_lex_86 :: "bool \<Rightarrow> codepoint \<Rightarrow> lex_case" where
  "pp_lex_86 eof la = (Some pp_sym_nothing,
      case ADVANCE_MAP [(CH_d, 32), (CH_e, 63), (CH_i, 39), (CH_l, 45), (CH_p, 60), (CH_u, 55),
        (CH_TAB, 26), (CH_SPACE, 26)] la of Some st \<Rightarrow> ADVANCE st | None \<Rightarrow>
        ( END_STATE))"

definition pp_lex_87 :: "bool \<Rightarrow> codepoint \<Rightarrow> lex_case" where
  "pp_lex_87 eof la = (Some pp_sym_nothing,
      if la = CH_d then ADVANCE 32 else
      if la = CH_e then ADVANCE 53 else
      if la = CH_i then ADVANCE 39 else
      if la = CH_u then ADVANCE 55 else
      if la = CH_TAB \<or> la = CH_SPACE then ADVANCE 27 else END_STATE)"

definition pp_lex_88 :: "bool \<Rightarrow> codepoint \<Rightarrow> lex_case" where
  "pp_lex_88 eof la = (Some pp_sym_nothing,
      if la = CH_d then ADVANCE 32 else
      if la = CH_i then ADVANCE 39 else
      if la = CH_u then ADVANCE 55 else
      if la = CH_TAB \<or> la = CH_SPACE then ADVANCE 28 else END_STATE)"

definition pp_lex_89 :: "bool \<Rightarrow> codepoint \<Rightarrow> lex_case" where
  "pp_lex_89 eof la = (Some pp_sym_nothing,
      if la \<noteq> 0 \<and> la \<noteq> CH_DQUOTE \<and> la \<noteq> CH_HASH \<and> la \<noteq>
        CH_QUOTE \<and> (la < CH_SLASH \<or> CH_9 < la) \<and> la \<noteq> CH_R then ADVANCE 89
        else END_STATE)"

definition pp_lex_90 :: "bool \<Rightarrow> codepoint \<Rightarrow> lex_case" where
  "pp_lex_90 eof la = (Some pp_sym_preproc_continuation_line, END_STATE)"

definition pp_lex_91 :: "bool \<Rightarrow> codepoint \<Rightarrow> lex_case" where
  "pp_lex_91 eof la = (Some pp_sym_preproc_line,
      if la = CH_LF then ADVANCE 90 else
      if la = CH_CR then ADVANCE 92 else
      if la = CH_BACKSLASH then ADVANCE 91 else
      if la \<noteq> 0 then ADVANCE 93 else END_STATE)"

definition pp_lex_92 :: "bool \<Rightarrow> codepoint \<Rightarrow> lex_case" where
  "pp_lex_92 eof la = (Some pp_sym_preproc_line,
      if la = CH_LF then ADVANCE 90 else
      if la = CH_BACKSLASH then ADVANCE 91 else
      if la \<noteq> 0 then ADVANCE 93 else END_STATE)"

definition pp_lex_93 :: "bool \<Rightarrow> codepoint \<Rightarrow> lex_case" where
  "pp_lex_93 eof la = (Some pp_sym_preproc_line,
      if la = CH_BACKSLASH then ADVANCE 91 else
      if la \<noteq> 0 \<and> la \<noteq> CH_LF then ADVANCE 93 else END_STATE)"

definition pp_lex_94 :: "bool \<Rightarrow> codepoint \<Rightarrow> lex_case" where
  "pp_lex_94 eof la = (Some pp_aux_sym_preproc_include_token1,
      if la = CH_UNDERSCORE then ADVANCE 58 else
      if la = CH_TAB \<or> la = CH_SPACE then ADVANCE 95 else END_STATE)"

definition pp_lex_95 :: "bool \<Rightarrow> codepoint \<Rightarrow> lex_case" where
  "pp_lex_95 eof la = (Some pp_aux_sym_preproc_include_token1,
      if la = CH_TAB \<or> la = CH_SPACE then ADVANCE 95 else END_STATE)"

definition pp_lex_96 :: "bool \<Rightarrow> codepoint \<Rightarrow> lex_case" where
  "pp_lex_96 eof la = (Some pp_anon_sym_LT, END_STATE)"

definition pp_lex_97 :: "bool \<Rightarrow> codepoint \<Rightarrow> lex_case" where
  "pp_lex_97 eof la = (Some pp_anon_sym_GT, END_STATE)"

definition pp_lex_98 :: "bool \<Rightarrow> codepoint \<Rightarrow> lex_case" where
  "pp_lex_98 eof la = (Some pp_sym_path,
      if (CH_TAB \<le> la \<and> la \<le> CH_CR) \<or> la = CH_SPACE then ADVANCE 98 else
      if la \<noteq> 0 \<and> la \<noteq> CH_GT then ADVANCE 99 else END_STATE)"

definition pp_lex_99 :: "bool \<Rightarrow> codepoint \<Rightarrow> lex_case" where
  "pp_lex_99 eof la = (Some pp_sym_path,
      if la \<noteq> 0 \<and> la \<noteq> CH_GT then ADVANCE 99 else END_STATE)"

definition pp_lex_100 :: "bool \<Rightarrow> codepoint \<Rightarrow> lex_case" where
  "pp_lex_100 eof la = (Some pp_aux_sym_define_token1,
      if la = CH_TAB \<or> la = CH_SPACE then ADVANCE 100 else END_STATE)"

definition pp_lex_101 :: "bool \<Rightarrow> codepoint \<Rightarrow> lex_case" where
  "pp_lex_101 eof la = (Some pp_anon_sym_LF,
      if la = CH_LF then ADVANCE 101 else END_STATE)"

definition pp_lex_102 :: "bool \<Rightarrow> codepoint \<Rightarrow> lex_case" where
  "pp_lex_102 eof la = (Some pp_aux_sym_preproc_if_token1, END_STATE)"

definition pp_lex_103 :: "bool \<Rightarrow> codepoint \<Rightarrow> lex_case" where
  "pp_lex_103 eof la = (Some pp_aux_sym_preproc_if_token2, END_STATE)"

definition pp_lex_104 :: "bool \<Rightarrow> codepoint \<Rightarrow> lex_case" where
  "pp_lex_104 eof la = (Some pp_aux_sym_preproc_elif_token1, END_STATE)"

definition pp_lex_105 :: "bool \<Rightarrow> codepoint \<Rightarrow> lex_case" where
  "pp_lex_105 eof la = (Some pp_aux_sym_preproc_else_token1, END_STATE)"

definition pp_lex_106 :: "bool \<Rightarrow> codepoint \<Rightarrow> lex_case" where
  "pp_lex_106 eof la = (Some pp_aux_sym_undef_token1,
      if la = CH_TAB \<or> la = CH_SPACE then ADVANCE 106 else END_STATE)"

definition pp_lex_107 :: "bool \<Rightarrow> codepoint \<Rightarrow> lex_case" where
  "pp_lex_107 eof la = (Some pp_aux_sym_preproc_nothing_token1, END_STATE)"

definition pp_lex_108 :: "bool \<Rightarrow> codepoint \<Rightarrow> lex_case" where
  "pp_lex_108 eof la = (Some pp_aux_sym_string_literal_token1, END_STATE)"

definition pp_lex_109 :: "bool \<Rightarrow> codepoint \<Rightarrow> lex_case" where
  "pp_lex_109 eof la = (Some pp_aux_sym_char_literal_token1, END_STATE)"

definition pp_lex_110 :: "bool \<Rightarrow> codepoint \<Rightarrow> lex_case" where
  "pp_lex_110 eof la = (Some pp_sym_integer_literal,
      if la = CH_QUOTE then ADVANCE 111 else
      if (CH_0 \<le> la \<and> la \<le> CH_9) then ADVANCE 110 else END_STATE)"

definition pp_lex_111 :: "bool \<Rightarrow> codepoint \<Rightarrow> lex_case" where
  "pp_lex_111 eof la = (Some pp_sym_integer_literal,
      if la = CH_QUOTE \<or> (CH_0 \<le> la \<and> la \<le> CH_9) then ADVANCE 111 else
        END_STATE)"

definition pp_lex_112 :: "bool \<Rightarrow> codepoint \<Rightarrow> lex_case" where
  "pp_lex_112 eof la = (Some pp_sym_comment, END_STATE)"

definition pp_lex_113 :: "bool \<Rightarrow> codepoint \<Rightarrow> lex_case" where
  "pp_lex_113 eof la = (Some pp_sym_comment,
      if la = CH_BACKSLASH then ADVANCE 12 else
      if la \<noteq> 0 \<and> la \<noteq> CH_LF then ADVANCE 113 else END_STATE)"

definition pp_lex_114 :: "bool \<Rightarrow> codepoint \<Rightarrow> lex_case" where
  "pp_lex_114 eof la = (Some pp_sym_comment,
      if la = CH_BACKSLASH then ADVANCE 12 else
      if la \<noteq> 0 then ADVANCE 113 else END_STATE)"

section \<open>The switch\<close>

definition pp_lex_cases :: "(bool \<Rightarrow> codepoint \<Rightarrow> lex_case) list" where
  "pp_lex_cases = [pp_lex_0, pp_lex_1, pp_lex_2, pp_lex_3, pp_lex_4, pp_lex_5, pp_lex_6,
    pp_lex_7, pp_lex_8, pp_lex_9, pp_lex_10, pp_lex_11, pp_lex_12, pp_lex_13, pp_lex_14,
    pp_lex_15, pp_lex_16, pp_lex_17, pp_lex_18, pp_lex_19, pp_lex_20, pp_lex_21, pp_lex_22,
    pp_lex_23, pp_lex_24, pp_lex_25, pp_lex_26, pp_lex_27, pp_lex_28, pp_lex_29, pp_lex_30,
    pp_lex_31, pp_lex_32, pp_lex_33, pp_lex_34, pp_lex_35, pp_lex_36, pp_lex_37, pp_lex_38,
    pp_lex_39, pp_lex_40, pp_lex_41, pp_lex_42, pp_lex_43, pp_lex_44, pp_lex_45, pp_lex_46,
    pp_lex_47, pp_lex_48, pp_lex_49, pp_lex_50, pp_lex_51, pp_lex_52, pp_lex_53, pp_lex_54,
    pp_lex_55, pp_lex_56, pp_lex_57, pp_lex_58, pp_lex_59, pp_lex_60, pp_lex_61, pp_lex_62,
    pp_lex_63, pp_lex_64, pp_lex_65, pp_lex_66, pp_lex_67, pp_lex_68, pp_lex_69, pp_lex_70,
    pp_lex_71, pp_lex_72, pp_lex_73, pp_lex_74, pp_lex_75, pp_lex_76, pp_lex_77, pp_lex_78,
    pp_lex_79, pp_lex_80, pp_lex_81, pp_lex_82, pp_lex_83, pp_lex_84, pp_lex_85, pp_lex_86,
    pp_lex_87, pp_lex_88, pp_lex_89, pp_lex_90, pp_lex_91, pp_lex_92, pp_lex_93, pp_lex_94,
    pp_lex_95, pp_lex_96, pp_lex_97, pp_lex_98, pp_lex_99, pp_lex_100, pp_lex_101, pp_lex_102,
    pp_lex_103, pp_lex_104, pp_lex_105, pp_lex_106, pp_lex_107, pp_lex_108, pp_lex_109,
    pp_lex_110, pp_lex_111, pp_lex_112, pp_lex_113, pp_lex_114]"

definition pp_ts_lex :: lex_switch where
  "pp_ts_lex state eof la =
     (if state < 115 then Some ((pp_lex_cases ! state) eof la) else None)"

lemmas pp_lex_defs =
  pp_lex_0_def pp_lex_1_def pp_lex_2_def pp_lex_3_def pp_lex_4_def pp_lex_5_def pp_lex_6_def
    pp_lex_7_def pp_lex_8_def pp_lex_9_def pp_lex_10_def pp_lex_11_def pp_lex_12_def
    pp_lex_13_def pp_lex_14_def pp_lex_15_def pp_lex_16_def pp_lex_17_def pp_lex_18_def
    pp_lex_19_def pp_lex_20_def pp_lex_21_def pp_lex_22_def pp_lex_23_def pp_lex_24_def
    pp_lex_25_def pp_lex_26_def pp_lex_27_def pp_lex_28_def pp_lex_29_def pp_lex_30_def
    pp_lex_31_def pp_lex_32_def pp_lex_33_def pp_lex_34_def pp_lex_35_def pp_lex_36_def
    pp_lex_37_def pp_lex_38_def pp_lex_39_def pp_lex_40_def pp_lex_41_def pp_lex_42_def
    pp_lex_43_def pp_lex_44_def pp_lex_45_def pp_lex_46_def pp_lex_47_def pp_lex_48_def
    pp_lex_49_def pp_lex_50_def pp_lex_51_def pp_lex_52_def pp_lex_53_def pp_lex_54_def
    pp_lex_55_def pp_lex_56_def pp_lex_57_def pp_lex_58_def pp_lex_59_def pp_lex_60_def
    pp_lex_61_def pp_lex_62_def pp_lex_63_def pp_lex_64_def pp_lex_65_def pp_lex_66_def
    pp_lex_67_def pp_lex_68_def pp_lex_69_def pp_lex_70_def pp_lex_71_def pp_lex_72_def
    pp_lex_73_def pp_lex_74_def pp_lex_75_def pp_lex_76_def pp_lex_77_def pp_lex_78_def
    pp_lex_79_def pp_lex_80_def pp_lex_81_def pp_lex_82_def pp_lex_83_def pp_lex_84_def
    pp_lex_85_def pp_lex_86_def pp_lex_87_def pp_lex_88_def pp_lex_89_def pp_lex_90_def
    pp_lex_91_def pp_lex_92_def pp_lex_93_def pp_lex_94_def pp_lex_95_def pp_lex_96_def
    pp_lex_97_def pp_lex_98_def pp_lex_99_def pp_lex_100_def pp_lex_101_def pp_lex_102_def
    pp_lex_103_def pp_lex_104_def pp_lex_105_def pp_lex_106_def pp_lex_107_def pp_lex_108_def
    pp_lex_109_def pp_lex_110_def pp_lex_111_def pp_lex_112_def pp_lex_113_def pp_lex_114_def

section \<open>The switch is closed\<close>

text \<open>Every jump of the switch goes to one of its cases, and the jump at the end of input is the last.\<close>

interpretation pp_switch: case_switch pp_ts_lex 115 pp_lex_cases
proof
  show "pp_ts_lex s e c = (if s < 115 then Some ((pp_lex_cases ! s) e c) else None)" for s e c
    by (rule pp_ts_lex_def)
  show "length pp_lex_cases = 115"
    by (simp add: pp_lex_cases_def)
  show "list_all (\<lambda>f. \<forall>e c. goto_bounded 115 (snd (f e c))) pp_lex_cases"
    unfolding pp_lex_cases_def list.pred_inject pp_lex_defs snd_conv
    by (intro conjI allI TrueI goto_bounded_intros; simp)
  show "list_all (eof_stop pp_lex_cases) pp_lex_cases"
    by (simp add: pp_lex_cases_def pp_lex_defs eof_stop_def)
qed

text \<open>The steps and the accepting states of the automaton, by evaluation of the cases.\<close>

lemmas pp_auto = pp_switch.next_eq pp_switch.state_accepts_eq pp_lex_cases_def

end
