(* ===== verification/Preproc_Tokens.thy ===== *)
theory Preproc_Tokens
  imports Preproc_Lex C_Tokens
begin

text \<open>
  The tokens of the \<^verbatim>\<open>preproc\<close> lexer: for the lex states the parser uses, the
  language of each token against the patterns of \<^verbatim>\<open>tree-sitter-preproc/grammar.js\<close>.
\<close>

section \<open>The automaton\<close>

lemma case_option_if [simp]:
  "(case (if b then x else y) of None \<Rightarrow> n | Some t \<Rightarrow> f t) =
     (if b then case x of None \<Rightarrow> n | Some t \<Rightarrow> f t else case y of None \<Rightarrow> n | Some t \<Rightarrow> f t)"
  by simp

interpretation pp_comment: comment_states pp_ts_lex pp_sym_comment 19 18 112 113 12 114
proof
  fix xs :: "codepoint list"
  show "lex_accepts pp_ts_lex 113 xs = Some pp_sym_comment" "lex_accepts pp_ts_lex 12 xs = None"
    "lex_accepts pp_ts_lex 114 xs = Some pp_sym_comment" "lex_accepts pp_ts_lex 19 xs = None"
    "lex_accepts pp_ts_lex 18 xs = None" "lex_accepts pp_ts_lex 112 xs = Some pp_sym_comment"
    by (cases xs; simp add: pp_switch.switch_eval pp_lex_cases_def pp_lex_defs)+
qed (simp_all add: pp_auto pp_lex_defs)

interpretation pp_string: quoted_states pp_ts_lex pp_aux_sym_string_literal_token1 CH_DQUOTE 15 69 108
  by unfold_locales (simp_all add: pp_auto pp_lex_defs)

interpretation pp_char: quoted_states pp_ts_lex pp_aux_sym_char_literal_token1 CH_QUOTE 16 70 109
  by unfold_locales (simp_all add: pp_auto pp_lex_defs)

section \<open>Keywords\<close>

text \<open>The states of a directive's keyword, and states that only lead to tokens of one kind.\<close>

definition pp_keyword_states :: "TSStateId list" where
  "pp_keyword_states = [1, 2, 3, 4, 5, 6, 7, 8, 20, 21, 22, 29, 30, 31, 32, 33, 34, 35, 36, 37, 38, 39, 40,
     41, 42, 43, 44, 45, 46, 47, 48, 49, 50, 51, 52, 53, 54, 55, 56, 57, 58, 59, 60, 61, 62, 63, 64, 65, 66,
     67, 68, 94, 95, 100, 102, 103, 104, 105, 106, 107]"

definition pp_keyword_tokens :: "TSSymbol list" where
  "pp_keyword_tokens = [pp_aux_sym_preproc_include_token1, pp_aux_sym_define_token1, pp_aux_sym_preproc_if_token1,
     pp_aux_sym_preproc_if_token2, pp_aux_sym_preproc_elif_token1, pp_aux_sym_preproc_else_token1,
     pp_aux_sym_undef_token1, pp_aux_sym_preproc_nothing_token1]"

lemma pp_avoid:
  assumes "list_all (\<lambda>s. s < 115) S" and "avoids pp_lex_cases S y" and "s \<in> set S"
  shows "\<not> token_word pp_ts_lex s y w"
  using pp_switch.avoids_token_word assms by blast

lemma pp_keyword_only:
  "s \<in> set pp_keyword_states \<Longrightarrow> y \<notin> set pp_keyword_tokens \<Longrightarrow> \<not> token_word pp_ts_lex s y w"
  by (rule pp_avoid [where S = pp_keyword_states])
    (simp_all add: pp_keyword_states_def pp_keyword_tokens_def avoids_def pp_lex_cases_def pp_lex_defs)

lemma pp_only_define:
  "s \<in> set [32, 43, 47, 57, 36, 68, 100] \<Longrightarrow>
   y \<noteq> pp_aux_sym_define_token1 \<Longrightarrow> \<not> token_word pp_ts_lex s y w"
  by (rule pp_avoid [where S = "[32, 43, 47, 57, 36, 68, 100]"])
    (simp_all add: avoids_def pp_lex_cases_def pp_lex_defs)

lemma pp_only_undef:
  "s \<in> set [55, 31, 37, 40, 67, 106] \<Longrightarrow>
   y \<noteq> pp_aux_sym_undef_token1 \<Longrightarrow> \<not> token_word pp_ts_lex s y w"
  by (rule pp_avoid [where S = "[55, 31, 37, 40, 67, 106]"])
    (simp_all add: avoids_def pp_lex_cases_def pp_lex_defs)

lemma pp_only_if:
  "s \<in> set [1, 2, 3, 4, 5, 102] \<Longrightarrow>
   y \<noteq> pp_aux_sym_preproc_if_token1 \<Longrightarrow> \<not> token_word pp_ts_lex s y w"
  by (rule pp_avoid [where S = "[1, 2, 3, 4, 5, 102]"])
    (simp_all add: avoids_def pp_lex_cases_def pp_lex_defs)

lemma pp_only_include:
  "s \<in> set [22, 51, 65, 30, 34, 94, 58, 35, 66, 64, 95] \<Longrightarrow>
   y \<noteq> pp_aux_sym_preproc_include_token1 \<Longrightarrow> \<not> token_word pp_ts_lex s y w"
  by (rule pp_avoid [where S = "[22, 51, 65, 30, 34, 94, 58, 35, 66, 64, 95]"])
    (simp_all add: avoids_def pp_lex_cases_def pp_lex_defs)

lemma pp_only_endif:
  "s \<in> set [29, 48, 42, 8, 103] \<Longrightarrow>
   y \<noteq> pp_aux_sym_preproc_if_token2 \<Longrightarrow> \<not> token_word pp_ts_lex s y w"
  by (rule pp_avoid [where S = "[29, 48, 42, 8, 103]"])
    (simp_all add: avoids_def pp_lex_cases_def pp_lex_defs)

lemma pp_only_elif:
  "s \<in> set [41, 6, 104] \<Longrightarrow>
   y \<noteq> pp_aux_sym_preproc_elif_token1 \<Longrightarrow> \<not> token_word pp_ts_lex s y w"
  by (rule pp_avoid [where S = "[41, 6, 104]"])
    (simp_all add: avoids_def pp_lex_cases_def pp_lex_defs)

lemma pp_only_else:
  "s \<in> set [38, 7, 105] \<Longrightarrow>
   y \<noteq> pp_aux_sym_preproc_else_token1 \<Longrightarrow> \<not> token_word pp_ts_lex s y w"
  by (rule pp_avoid [where S = "[38, 7, 105]"])
    (simp_all add: avoids_def pp_lex_cases_def pp_lex_defs)

lemma pp_only_nothing:
  "s \<in> set [63, 61, 59, 62, 60, 20, 44, 52, 21, 45, 56, 33, 107] \<Longrightarrow>
   y \<noteq> pp_aux_sym_preproc_nothing_token1 \<Longrightarrow> \<not> token_word pp_ts_lex s y w"
  by (rule pp_avoid [where S = "[63, 61, 59, 62, 60, 20, 44, 52, 21, 45, 56, 33, 107]"])
    (simp_all add: avoids_def pp_lex_cases_def pp_lex_defs)

lemmas pp_only =
  pp_only_define pp_only_undef pp_only_if pp_only_include pp_only_endif pp_only_elif pp_only_else pp_only_nothing

lemma pp_define_states:
  "0 \<notin> set w \<Longrightarrow>
     (token_word pp_ts_lex 100 pp_aux_sym_define_token1 w \<longleftrightarrow> matches (Star re_space) w) \<and>
     (token_word pp_ts_lex 68 pp_aux_sym_define_token1 w \<longleftrightarrow> matches (Plus re_space) w) \<and>
     (token_word pp_ts_lex 36 pp_aux_sym_define_token1 w \<longleftrightarrow> matches (Seq (Word [CH_e]) (Plus re_space)) w) \<and>
     (token_word pp_ts_lex 57 pp_aux_sym_define_token1 w \<longleftrightarrow> matches (Seq (Word [CH_n, CH_e]) (Plus re_space)) w) \<and>
     (token_word pp_ts_lex 47 pp_aux_sym_define_token1 w \<longleftrightarrow> matches (Seq (Word [CH_i, CH_n, CH_e]) (Plus re_space)) w) \<and>
     (token_word pp_ts_lex 43 pp_aux_sym_define_token1 w \<longleftrightarrow> matches (Seq (Word [CH_f, CH_i, CH_n, CH_e]) (Plus re_space)) w) \<and>
     (token_word pp_ts_lex 32 pp_aux_sym_define_token1 w \<longleftrightarrow> matches (Seq (Word [CH_e, CH_f, CH_i, CH_n, CH_e]) (Plus re_space)) w)"
  by (induction w) (auto simp: regex_step pp_auto pp_lex_defs)

lemma pp_undef_states:
  "0 \<notin> set w \<Longrightarrow>
     (token_word pp_ts_lex 106 pp_aux_sym_undef_token1 w \<longleftrightarrow> matches (Star re_space) w) \<and>
     (token_word pp_ts_lex 67 pp_aux_sym_undef_token1 w \<longleftrightarrow> matches (Plus re_space) w) \<and>
     (token_word pp_ts_lex 40 pp_aux_sym_undef_token1 w \<longleftrightarrow> matches (Seq (Word [CH_f]) (Plus re_space)) w) \<and>
     (token_word pp_ts_lex 37 pp_aux_sym_undef_token1 w \<longleftrightarrow> matches (Seq (Word [CH_e, CH_f]) (Plus re_space)) w) \<and>
     (token_word pp_ts_lex 31 pp_aux_sym_undef_token1 w \<longleftrightarrow> matches (Seq (Word [CH_d, CH_e, CH_f]) (Plus re_space)) w) \<and>
     (token_word pp_ts_lex 55 pp_aux_sym_undef_token1 w \<longleftrightarrow> matches (Seq (Word [CH_n, CH_d, CH_e, CH_f]) (Plus re_space)) w)"
  by (induction w) (auto simp: regex_step pp_auto pp_lex_defs)

lemma pp_include_states:
  "0 \<notin> set w \<Longrightarrow>
     (token_word pp_ts_lex 95 pp_aux_sym_preproc_include_token1 w \<longleftrightarrow> matches (Star re_space) w) \<and>
     (token_word pp_ts_lex 64 pp_aux_sym_preproc_include_token1 w \<longleftrightarrow> matches (Seq (Word [CH_t]) (Star re_space)) w) \<and>
     (token_word pp_ts_lex 66 pp_aux_sym_preproc_include_token1 w \<longleftrightarrow> matches (Seq (Word [CH_x, CH_t]) (Star re_space)) w) \<and>
     (token_word pp_ts_lex 35 pp_aux_sym_preproc_include_token1 w \<longleftrightarrow> matches (Seq (Word [CH_e, CH_x, CH_t]) (Star re_space)) w) \<and>
     (token_word pp_ts_lex 58 pp_aux_sym_preproc_include_token1 w \<longleftrightarrow> matches (Seq (Word [CH_n, CH_e, CH_x, CH_t]) (Star re_space)) w) \<and>
     (token_word pp_ts_lex 94 pp_aux_sym_preproc_include_token1 w \<longleftrightarrow> matches (Seq (Opt (Word [CH_UNDERSCORE, CH_n, CH_e, CH_x, CH_t])) (Star re_space)) w) \<and>
     (token_word pp_ts_lex 34 pp_aux_sym_preproc_include_token1 w \<longleftrightarrow> matches (Seq (Word [CH_e]) (Seq (Opt (Word [CH_UNDERSCORE, CH_n, CH_e, CH_x, CH_t])) (Star re_space))) w) \<and>
     (token_word pp_ts_lex 30 pp_aux_sym_preproc_include_token1 w \<longleftrightarrow> matches (Seq (Word [CH_d, CH_e]) (Seq (Opt (Word [CH_UNDERSCORE, CH_n, CH_e, CH_x, CH_t])) (Star re_space))) w) \<and>
     (token_word pp_ts_lex 65 pp_aux_sym_preproc_include_token1 w \<longleftrightarrow> matches (Seq (Word [CH_u, CH_d, CH_e]) (Seq (Opt (Word [CH_UNDERSCORE, CH_n, CH_e, CH_x, CH_t])) (Star re_space))) w) \<and>
     (token_word pp_ts_lex 51 pp_aux_sym_preproc_include_token1 w \<longleftrightarrow> matches (Seq (Word [CH_l, CH_u, CH_d, CH_e]) (Seq (Opt (Word [CH_UNDERSCORE, CH_n, CH_e, CH_x, CH_t])) (Star re_space))) w) \<and>
     (token_word pp_ts_lex 22 pp_aux_sym_preproc_include_token1 w \<longleftrightarrow> matches (Seq (Word [CH_c, CH_l, CH_u, CH_d, CH_e]) (Seq (Opt (Word [CH_UNDERSCORE, CH_n, CH_e, CH_x, CH_t])) (Star re_space))) w)"
  by (induction w) (auto simp: regex_step pp_auto pp_lex_defs)

lemma pp_if_states:
  "0 \<notin> set w \<Longrightarrow>
     (token_word pp_ts_lex 102 pp_aux_sym_preproc_if_token1 w \<longleftrightarrow> matches (Eps) w) \<and>
     (token_word pp_ts_lex 5 pp_aux_sym_preproc_if_token1 w \<longleftrightarrow> matches (Seq (Star re_dot) (Char CH_LF)) w) \<and>
     (token_word pp_ts_lex 4 pp_aux_sym_preproc_if_token1 w \<longleftrightarrow> matches (Alt (Seq (Word [CH_f]) (Seq (Star re_dot) (Char CH_LF))) (Seq (Star re_dot) (Char CH_LF))) w) \<and>
     (token_word pp_ts_lex 3 pp_aux_sym_preproc_if_token1 w \<longleftrightarrow> matches (Alt (Seq (Word [CH_e, CH_f]) (Seq (Star re_dot) (Char CH_LF))) (Seq (Star re_dot) (Char CH_LF))) w) \<and>
     (token_word pp_ts_lex 2 pp_aux_sym_preproc_if_token1 w \<longleftrightarrow> matches (Alt (Seq (Word [CH_d, CH_e, CH_f]) (Seq (Star re_dot) (Char CH_LF))) (Seq (Star re_dot) (Char CH_LF))) w) \<and>
     (token_word pp_ts_lex 1 pp_aux_sym_preproc_if_token1 w \<longleftrightarrow> matches (Alt (Seq (Word [CH_d, CH_e, CH_f]) (Seq (Star re_dot) (Char CH_LF))) (Alt (Seq (Word [CH_n, CH_d, CH_e, CH_f]) (Seq (Star re_dot) (Char CH_LF))) (Seq (Star re_dot) (Char CH_LF)))) w)"
  by (induction w) (auto simp: regex_step pp_auto pp_lex_defs)

lemma pp_endif_states:
  "0 \<notin> set w \<Longrightarrow>
     (token_word pp_ts_lex 103 pp_aux_sym_preproc_if_token2 w \<longleftrightarrow> matches (Eps) w) \<and>
     (token_word pp_ts_lex 8 pp_aux_sym_preproc_if_token2 w \<longleftrightarrow> matches (Seq (Star re_dot) (Char CH_LF)) w) \<and>
     (token_word pp_ts_lex 42 pp_aux_sym_preproc_if_token2 w \<longleftrightarrow> matches (Seq (Word [CH_f]) (Seq (Star re_dot) (Char CH_LF))) w) \<and>
     (token_word pp_ts_lex 48 pp_aux_sym_preproc_if_token2 w \<longleftrightarrow> matches (Seq (Word [CH_i, CH_f]) (Seq (Star re_dot) (Char CH_LF))) w) \<and>
     (token_word pp_ts_lex 29 pp_aux_sym_preproc_if_token2 w \<longleftrightarrow> matches (Seq (Word [CH_d, CH_i, CH_f]) (Seq (Star re_dot) (Char CH_LF))) w)"
  by (induction w) (auto simp: regex_step pp_auto pp_lex_defs)

lemma pp_elif_states:
  "0 \<notin> set w \<Longrightarrow>
     (token_word pp_ts_lex 104 pp_aux_sym_preproc_elif_token1 w \<longleftrightarrow> matches (Eps) w) \<and>
     (token_word pp_ts_lex 6 pp_aux_sym_preproc_elif_token1 w \<longleftrightarrow> matches (Seq (Star re_dot) (Char CH_LF)) w) \<and>
     (token_word pp_ts_lex 41 pp_aux_sym_preproc_elif_token1 w \<longleftrightarrow> matches (Seq (Word [CH_f]) (Seq (Star re_dot) (Char CH_LF))) w)"
  by (induction w) (auto simp: regex_step pp_auto pp_lex_defs)

lemma pp_else_states:
  "0 \<notin> set w \<Longrightarrow>
     (token_word pp_ts_lex 105 pp_aux_sym_preproc_else_token1 w \<longleftrightarrow> matches (Eps) w) \<and>
     (token_word pp_ts_lex 7 pp_aux_sym_preproc_else_token1 w \<longleftrightarrow> matches (Seq (Star re_dot) (Char CH_LF)) w) \<and>
     (token_word pp_ts_lex 38 pp_aux_sym_preproc_else_token1 w \<longleftrightarrow> matches (Seq (Word [CH_e]) (Seq (Star re_dot) (Char CH_LF))) w)"
  by (induction w) (auto simp: regex_step pp_auto pp_lex_defs)

lemma pp_nothing_states:
  "0 \<notin> set w \<Longrightarrow>
     (token_word pp_ts_lex 107 pp_aux_sym_preproc_nothing_token1 w \<longleftrightarrow> matches (Eps) w) \<and>
     (token_word pp_ts_lex 62 pp_aux_sym_preproc_nothing_token1 w \<longleftrightarrow> matches (Word [CH_r]) w) \<and>
     (token_word pp_ts_lex 59 pp_aux_sym_preproc_nothing_token1 w \<longleftrightarrow> matches (Word [CH_o, CH_r]) w) \<and>
     (token_word pp_ts_lex 61 pp_aux_sym_preproc_nothing_token1 w \<longleftrightarrow> matches (Word [CH_r, CH_o, CH_r]) w) \<and>
     (token_word pp_ts_lex 63 pp_aux_sym_preproc_nothing_token1 w \<longleftrightarrow> matches (Word [CH_r, CH_r, CH_o, CH_r]) w) \<and>
     (token_word pp_ts_lex 33 pp_aux_sym_preproc_nothing_token1 w \<longleftrightarrow> matches (Word [CH_e]) w) \<and>
     (token_word pp_ts_lex 56 pp_aux_sym_preproc_nothing_token1 w \<longleftrightarrow> matches (Word [CH_n, CH_e]) w) \<and>
     (token_word pp_ts_lex 45 pp_aux_sym_preproc_nothing_token1 w \<longleftrightarrow> matches (Word [CH_i, CH_n, CH_e]) w) \<and>
     (token_word pp_ts_lex 21 pp_aux_sym_preproc_nothing_token1 w \<longleftrightarrow> matches (Word [CH_a]) w) \<and>
     (token_word pp_ts_lex 52 pp_aux_sym_preproc_nothing_token1 w \<longleftrightarrow> matches (Word [CH_m, CH_a]) w) \<and>
     (token_word pp_ts_lex 44 pp_aux_sym_preproc_nothing_token1 w \<longleftrightarrow> matches (Word [CH_g, CH_m, CH_a]) w) \<and>
     (token_word pp_ts_lex 20 pp_aux_sym_preproc_nothing_token1 w \<longleftrightarrow> matches (Word [CH_a, CH_g, CH_m, CH_a]) w) \<and>
     (token_word pp_ts_lex 60 pp_aux_sym_preproc_nothing_token1 w \<longleftrightarrow> matches (Word [CH_r, CH_a, CH_g, CH_m, CH_a]) w)"
  by (induction w) (auto simp: regex_step pp_auto pp_lex_defs)

definition pp_text_tokens :: "TSSymbol list" where
  "pp_text_tokens = [pp_sym_nothing, pp_sym_comment, pp_aux_sym_string_literal_token1,
     pp_aux_sym_char_literal_token1, pp_sym_integer_literal]"

lemma pp_text_only:
  "s \<in> set [15, 69, 108, 16, 70, 109, 82, 19, 18, 112, 113, 12, 114, 75, 89, 110, 111] \<Longrightarrow>
   y \<notin> set pp_text_tokens \<Longrightarrow> \<not> token_word pp_ts_lex s y w"
  by (rule pp_avoid [where S = "[15, 69, 108, 16, 70, 109, 82, 19, 18, 112, 113, 12, 114, 75, 89, 110, 111]"])
    (simp_all add: pp_text_tokens_def avoids_def pp_lex_cases_def pp_lex_defs)

lemma pp_keyword_not_text: "y \<in> set pp_keyword_tokens \<Longrightarrow> y \<notin> set pp_text_tokens"
  by (auto simp: pp_keyword_tokens_def pp_text_tokens_def)

text \<open>The tokens that are no directives: comments, literals, and the catch-all token.\<close>

definition pp_integer_regex :: regex where
  "pp_integer_regex = Seq (Plus (Class (\<lambda>c. CH_0 \<le> c \<and> c \<le> CH_9)))
     (Star (Class (\<lambda>c. CH_0 \<le> c \<and> c \<le> CH_9 \<or> c = CH_QUOTE)))"

abbreviation pp_plain :: regex where
  "pp_plain \<equiv> Class (\<lambda>c. c \<noteq> CH_R \<and> c \<noteq> CH_DQUOTE \<and> c \<noteq> CH_QUOTE \<and> c \<noteq> CH_SLASH \<and> c \<noteq> CH_HASH \<and>
     \<not> (CH_0 \<le> c \<and> c \<le> CH_9))"

abbreviation pp_lone :: regex where
  "pp_lone \<equiv> Alt (Char CH_R) (Alt (Char CH_HASH) (Char CH_SLASH))"

definition pp_nothing_regex :: regex where
  "pp_nothing_regex = Alt (Plus pp_plain)
     (Alt (Char CH_R) (Alt (Char CH_HASH) (Alt (Char CH_SLASH) (Char CH_LF))))"

lemma pp_no_comment:
  "s \<in> set [15, 69, 108, 16, 70, 109, 75, 89, 110, 111] \<Longrightarrow> \<not> token_word pp_ts_lex s pp_sym_comment w"
  by (rule pp_avoid [where S = "[15, 69, 108, 16, 70, 109, 75, 89, 110, 111]"])
    (simp_all add: avoids_def pp_lex_cases_def pp_lex_defs)

lemma pp_no_string:
  "s \<in> set [16, 70, 109, 82, 19, 18, 112, 113, 12, 114, 75, 89, 110, 111] \<Longrightarrow> \<not> token_word pp_ts_lex s pp_aux_sym_string_literal_token1 w"
  by (rule pp_avoid [where S = "[16, 70, 109, 82, 19, 18, 112, 113, 12, 114, 75, 89, 110, 111]"])
    (simp_all add: avoids_def pp_lex_cases_def pp_lex_defs)

lemma pp_no_char:
  "s \<in> set [15, 69, 108, 82, 19, 18, 112, 113, 12, 114, 75, 89, 110, 111] \<Longrightarrow> \<not> token_word pp_ts_lex s pp_aux_sym_char_literal_token1 w"
  by (rule pp_avoid [where S = "[15, 69, 108, 82, 19, 18, 112, 113, 12, 114, 75, 89, 110, 111]"])
    (simp_all add: avoids_def pp_lex_cases_def pp_lex_defs)

lemma pp_no_integer:
  "s \<in> set [15, 69, 108, 16, 70, 109, 82, 19, 18, 112, 113, 12, 114, 75, 89] \<Longrightarrow> \<not> token_word pp_ts_lex s pp_sym_integer_literal w"
  by (rule pp_avoid [where S = "[15, 69, 108, 16, 70, 109, 82, 19, 18, 112, 113, 12, 114, 75, 89]"])
    (simp_all add: avoids_def pp_lex_cases_def pp_lex_defs)

lemma pp_no_nothing:
  "s \<in> set [15, 69, 108, 16, 70, 109, 19, 18, 112, 113, 12, 114, 110, 111] \<Longrightarrow> \<not> token_word pp_ts_lex s pp_sym_nothing w"
  by (rule pp_avoid [where S = "[15, 69, 108, 16, 70, 109, 19, 18, 112, 113, 12, 114, 110, 111]"])
    (simp_all add: avoids_def pp_lex_cases_def pp_lex_defs)

lemma pp_slash_comment:
  "0 \<notin> set w \<Longrightarrow> token_word pp_ts_lex 82 pp_sym_comment w \<longleftrightarrow> matches (deriv CH_SLASH comment_regex) w"
  by (rule pp_comment.slash_language) (simp_all add: pp_auto pp_lex_defs)

lemma pp_integer_states:
  "0 \<notin> set w \<Longrightarrow>
     (token_word pp_ts_lex 111 pp_sym_integer_literal w \<longleftrightarrow>
        matches (Star (Class (\<lambda>c. CH_0 \<le> c \<and> c \<le> CH_9 \<or> c = CH_QUOTE))) w) \<and>
     (token_word pp_ts_lex 110 pp_sym_integer_literal w \<longleftrightarrow>
        matches (Seq (Star (Class (\<lambda>c. CH_0 \<le> c \<and> c \<le> CH_9)))
          (Star (Class (\<lambda>c. CH_0 \<le> c \<and> c \<le> CH_9 \<or> c = CH_QUOTE)))) w)"
  by (induction w) (auto simp: regex_step pp_auto pp_lex_defs)

lemma pp_text_states:
  "0 \<notin> set w \<Longrightarrow>
     (token_word pp_ts_lex 75 pp_sym_nothing w \<longleftrightarrow> w = []) \<and>
     (token_word pp_ts_lex 82 pp_sym_nothing w \<longleftrightarrow> w = []) \<and>
     (token_word pp_ts_lex 89 pp_sym_nothing w \<longleftrightarrow>
        matches (Star pp_plain) w)"
  by (induction w) (auto simp: regex_step pp_auto pp_lex_defs pp_no_nothing)

section \<open>Items\<close>

text \<open>
  The lexer has three states to start a top-level item in: at the top of a file, in a conditional,
  and in its last branch. They differ in the directives they know. Each has a state for the blanks before
  a directive, another for blanks with a line end among them, and behind the hash sign a state for each
  of the two. \<open>spells after y k\<close>: from the states that \<open>after\<close> names, the words of token \<open>y\<close> are
  those of \<open>k\<close>.
\<close>

definition spells :: "(codepoint \<Rightarrow> TSStateId option) \<Rightarrow> TSSymbol \<Rightarrow> regex \<Rightarrow> bool" where
  "spells after y k \<longleftrightarrow> \<not> nullable k \<and>
     (\<forall>c w. c \<noteq> 0 \<longrightarrow> 0 \<notin> set w \<longrightarrow> (matches k (c # w) \<longleftrightarrow>
        c \<noteq> CH_SPACE \<and> c \<noteq> CH_TAB \<and>
        (case after c of None \<Rightarrow> False | Some t \<Rightarrow> token_word pp_ts_lex t y w)))"

definition directive :: "regex \<Rightarrow> regex" where
  "directive k = Seq (Star re_space) (Seq (Char CH_HASH) (Seq (Star re_space) k))"

locale item_states =
  fixes start sp nl hash loop hash_nl loop_nl :: TSStateId
    and after after_nl :: "codepoint \<Rightarrow> TSStateId option"
  assumes start_next: "lex_next pp_ts_lex start c = (if c = CH_LF then Some nl else if c = CH_DQUOTE then Some 15
     else if c = CH_HASH then Some hash else if c = CH_QUOTE then Some 16 else if c = CH_SLASH then Some 82
     else if c = CH_R then Some 75 else if c = CH_TAB \<or> c = CH_SPACE then Some sp
     else if CH_VT \<le> c \<and> c \<le> CH_CR then Some nl else if CH_0 \<le> c \<and> c \<le> CH_9 then Some 110
     else if c \<noteq> 0 then Some 89 else None)"
    and sp_next: "lex_next pp_ts_lex sp c = (if c = CH_LF then Some nl else if c = CH_HASH then Some hash
     else if c = CH_SLASH then Some 82 else if c = CH_R then Some 75 else if c = CH_TAB \<or> c = CH_SPACE then Some sp
     else if CH_VT \<le> c \<and> c \<le> CH_CR then Some nl
     else if c \<noteq> 0 \<and> c \<noteq> CH_DQUOTE \<and> c \<noteq> CH_QUOTE \<and> (c < CH_SLASH \<or> CH_9 < c) then Some 89 else None)"
    and nl_next: "lex_next pp_ts_lex nl c = (if c = CH_LF then Some nl else if c = CH_HASH then Some hash_nl
     else if c = CH_SLASH then Some 82 else if c = CH_R then Some 75 else if c = CH_TAB \<or> c = CH_SPACE then Some nl
     else if CH_VT \<le> c \<and> c \<le> CH_CR then Some nl
     else if c \<noteq> 0 \<and> c \<noteq> CH_DQUOTE \<and> c \<noteq> CH_QUOTE \<and> (c < CH_SLASH \<or> CH_9 < c) then Some 89 else None)"
    and hash_next: "lex_next pp_ts_lex hash c = (if c = CH_TAB \<or> c = CH_SPACE then Some loop else after c)"
      "lex_next pp_ts_lex loop c = (if c = CH_TAB \<or> c = CH_SPACE then Some loop else after c)"
      "lex_next pp_ts_lex hash_nl c = (if c = CH_TAB \<or> c = CH_SPACE then Some loop_nl else after_nl c)"
      "lex_next pp_ts_lex loop_nl c = (if c = CH_TAB \<or> c = CH_SPACE then Some loop_nl else after_nl c)"
    and item_accepts: "state_accepts pp_ts_lex start = None" "state_accepts pp_ts_lex sp = Some pp_sym_nothing"
      "state_accepts pp_ts_lex nl = Some pp_sym_nothing" "state_accepts pp_ts_lex hash = Some pp_sym_nothing"
      "state_accepts pp_ts_lex loop = None" "state_accepts pp_ts_lex hash_nl = Some pp_sym_nothing"
      "state_accepts pp_ts_lex loop_nl = None"
    and after_keyword: "after c = Some t \<Longrightarrow> t \<in> set pp_keyword_states"
      "after_nl c = Some t \<Longrightarrow> t \<in> set pp_keyword_states"
begin

lemmas item_next = start_next sp_next nl_next

lemma hash_language:
  assumes "y \<noteq> pp_sym_nothing"
  shows "0 \<notin> set w \<Longrightarrow>
    (spells after y k \<longrightarrow>
      (token_word pp_ts_lex hash y w \<longleftrightarrow> matches (Seq (Star re_space) k) w) \<and>
      (token_word pp_ts_lex loop y w \<longleftrightarrow> matches (Seq (Star re_space) k) w)) \<and>
    (spells after_nl y k \<longrightarrow>
      (token_word pp_ts_lex hash_nl y w \<longleftrightarrow> matches (Seq (Star re_space) k) w) \<and>
      (token_word pp_ts_lex loop_nl y w \<longleftrightarrow> matches (Seq (Star re_space) k) w))"
proof (induction w)
  case Nil
  then show ?case
    using assms by (auto simp: regex_step item_accepts spells_def)
next
  case (Cons c w)
  then show ?case
    by (auto simp: token_word_Cons matches_Nil matches_Cons hash_next spells_def split: option.splits)
qed

text \<open>A token that is spelt behind both hash signs may have any blanks before it.\<close>

lemma item_keyword_language:
  assumes "y \<in> set pp_keyword_tokens" and "spells after y k" and "spells after_nl y k"
  shows "0 \<notin> set w \<Longrightarrow>
    (token_word pp_ts_lex sp y w \<longleftrightarrow> matches (Seq (Star re_blank) (Seq (Char CH_HASH) (Seq (Star re_space) k))) w) \<and>
    (token_word pp_ts_lex nl y w \<longleftrightarrow> matches (Seq (Star re_blank) (Seq (Char CH_HASH) (Seq (Star re_space) k))) w) \<and>
    (token_word pp_ts_lex start y w \<longleftrightarrow> matches (Seq (Star re_blank) (Seq (Char CH_HASH) (Seq (Star re_space) k))) w)"
proof (induction w)
  case Nil
  then show ?case
    using assms(1) pp_keyword_not_text [OF assms(1)]
    by (auto simp: regex_step item_accepts pp_text_tokens_def)
next
  case (Cons c w)
  then show ?case
    using hash_language [of y w k] assms(2,3) pp_keyword_not_text [OF assms(1)]
    by (auto simp: regex_step item_next pp_text_only pp_text_tokens_def)
qed

text \<open>A token that is spelt behind the first hash sign only has no line end before it.\<close>

lemma hash_nl_avoids:
  assumes "y \<in> set pp_keyword_tokens" and "\<And>c t v. after_nl c = Some t \<Longrightarrow> \<not> token_word pp_ts_lex t y v"
  shows "\<not> token_word pp_ts_lex hash_nl y w \<and> \<not> token_word pp_ts_lex loop_nl y w"
  using pp_keyword_not_text [OF assms(1)]
  by (induction w) (auto simp: regex_step item_accepts hash_next pp_text_tokens_def split: option.splits dest: assms(2))

lemma nl_avoids:
  assumes "y \<in> set pp_keyword_tokens" and "\<And>c t v. after_nl c = Some t \<Longrightarrow> \<not> token_word pp_ts_lex t y v"
  shows "\<not> token_word pp_ts_lex nl y w"
  using pp_keyword_not_text [OF assms(1)]
  by (induction w) (auto simp: regex_step item_accepts nl_next hash_nl_avoids [OF assms(1)] assms(2)
      pp_text_only pp_text_tokens_def)

lemma item_immediate_language:
  assumes "y \<in> set pp_keyword_tokens" and "spells after y k"
    and "\<And>c t v. after_nl c = Some t \<Longrightarrow> \<not> token_word pp_ts_lex t y v"
  shows "0 \<notin> set w \<Longrightarrow>
    (token_word pp_ts_lex sp y w \<longleftrightarrow> matches (directive k) w) \<and>
    (token_word pp_ts_lex start y w \<longleftrightarrow> matches (directive k) w)"
proof (induction w)
  case Nil
  then show ?case
    using pp_keyword_not_text [OF assms(1)]
    by (auto simp: regex_step item_accepts pp_text_tokens_def directive_def)
next
  case (Cons c w)
  then show ?case
    using hash_language [of y w k] assms(2) pp_keyword_not_text [OF assms(1)]
    by (auto simp: regex_step item_next pp_text_only pp_text_tokens_def directive_def nl_avoids [OF assms(1,3)])
qed

lemma item_unknown:
  assumes "y \<in> set pp_keyword_tokens"
    and "\<And>c t v. after c = Some t \<Longrightarrow> \<not> token_word pp_ts_lex t y v"
    and "\<And>c t v. after_nl c = Some t \<Longrightarrow> \<not> token_word pp_ts_lex t y v"
  shows "\<not> token_word pp_ts_lex start y w"
proof -
  have hash: "\<not> token_word pp_ts_lex hash y v \<and> \<not> token_word pp_ts_lex loop y v" for v
    using pp_keyword_not_text [OF assms(1)]
    by (induction v) (auto simp: regex_step item_accepts hash_next pp_text_tokens_def split: option.splits dest: assms(2))
  have "\<not> token_word pp_ts_lex sp y v" for v
    using pp_keyword_not_text [OF assms(1)]
    by (induction v) (auto simp: regex_step item_accepts sp_next hash nl_avoids [OF assms(1,3)]
        pp_text_only pp_text_tokens_def)
  then show ?thesis
    using pp_keyword_not_text [OF assms(1)]
    by (cases w) (auto simp: regex_step item_accepts start_next hash nl_avoids [OF assms(1,3)]
        pp_text_only pp_text_tokens_def)
qed

text \<open>The other tokens: behind a hash sign only the catch-all token can still end.\<close>

lemma hash_text:
  assumes "y \<notin> set pp_keyword_tokens"
  shows "(token_word pp_ts_lex hash y w \<longleftrightarrow> w = [] \<and> y = pp_sym_nothing) \<and> \<not> token_word pp_ts_lex loop y w \<and>
    (token_word pp_ts_lex hash_nl y w \<longleftrightarrow> w = [] \<and> y = pp_sym_nothing) \<and> \<not> token_word pp_ts_lex loop_nl y w"
  by (induction w) (auto simp: regex_step item_accepts hash_next split: option.splits
      dest: after_keyword intro: pp_keyword_only [OF _ assms, THEN notE])

lemma hash_text_simps:
  "y \<notin> set pp_keyword_tokens \<Longrightarrow> token_word pp_ts_lex hash y w \<longleftrightarrow> w = [] \<and> y = pp_sym_nothing"
  "y \<notin> set pp_keyword_tokens \<Longrightarrow> token_word pp_ts_lex hash_nl y w \<longleftrightarrow> w = [] \<and> y = pp_sym_nothing"
  by (simp_all add: hash_text)

lemma item_comment_language:
  "0 \<notin> set w \<Longrightarrow>
    (token_word pp_ts_lex sp pp_sym_comment w \<longleftrightarrow> matches (Seq (Star re_blank) comment_regex) w) \<and>
    (token_word pp_ts_lex nl pp_sym_comment w \<longleftrightarrow> matches (Seq (Star re_blank) comment_regex) w) \<and>
    (token_word pp_ts_lex start pp_sym_comment w \<longleftrightarrow> matches (Seq (Star re_blank) comment_regex) w)"
proof (induction w)
  case Nil
  then show ?case
    by (simp add: regex_step item_accepts comment_not_nullable)
next
  case (Cons c w)
  then show ?case
    by (auto simp: regex_step item_next hash_text_simps pp_keyword_tokens_def pp_slash_comment pp_no_comment comment_deriv)
qed

lemma item_string_language:
  "0 \<notin> set w \<Longrightarrow> token_word pp_ts_lex start pp_aux_sym_string_literal_token1 w \<longleftrightarrow> matches string_regex w"
proof (cases w)
  case Nil
  then show ?thesis
    by (simp add: regex_step item_accepts string_regex_def)
next
  case (Cons c v)
  have blank: "\<not> token_word pp_ts_lex sp pp_aux_sym_string_literal_token1 v \<and>
      \<not> token_word pp_ts_lex nl pp_aux_sym_string_literal_token1 v" for v
    by (induction v) (auto simp: regex_step item_accepts item_next hash_text_simps pp_keyword_tokens_def pp_no_string)
  assume "0 \<notin> set w"
  with Cons show ?thesis
    using pp_string.quoted_language [of v]
    by (auto simp: regex_step item_next hash_text_simps pp_keyword_tokens_def pp_no_string string_regex_def blank)
qed

lemma item_char_language:
  "0 \<notin> set w \<Longrightarrow> token_word pp_ts_lex start pp_aux_sym_char_literal_token1 w \<longleftrightarrow> matches char_regex w"
proof (cases w)
  case Nil
  then show ?thesis
    by (simp add: regex_step item_accepts char_regex_def)
next
  case (Cons c v)
  have blank: "\<not> token_word pp_ts_lex sp pp_aux_sym_char_literal_token1 v \<and>
      \<not> token_word pp_ts_lex nl pp_aux_sym_char_literal_token1 v" for v
    by (induction v) (auto simp: regex_step item_accepts item_next hash_text_simps pp_keyword_tokens_def pp_no_char)
  assume "0 \<notin> set w"
  with Cons show ?thesis
    using pp_char.quoted_language [of v]
    by (auto simp: regex_step item_next hash_text_simps pp_keyword_tokens_def pp_no_char char_regex_def blank)
qed

lemma item_integer_language:
  "0 \<notin> set w \<Longrightarrow> token_word pp_ts_lex start pp_sym_integer_literal w \<longleftrightarrow> matches pp_integer_regex w"
proof (cases w)
  case Nil
  then show ?thesis
    by (simp add: regex_step item_accepts pp_integer_regex_def)
next
  case (Cons c v)
  have blank: "\<not> token_word pp_ts_lex sp pp_sym_integer_literal v \<and>
      \<not> token_word pp_ts_lex nl pp_sym_integer_literal v" for v
    by (induction v) (auto simp: regex_step item_accepts item_next hash_text_simps pp_keyword_tokens_def pp_no_integer)
  assume "0 \<notin> set w"
  with Cons show ?thesis
    using pp_integer_states [of v]
    by (auto simp: regex_step item_next hash_text_simps pp_keyword_tokens_def pp_no_integer pp_integer_regex_def blank)
qed

lemma blank_nothing_language:
  "0 \<notin> set w \<Longrightarrow>
    (token_word pp_ts_lex sp pp_sym_nothing w \<longleftrightarrow>
      matches (Alt (Star pp_plain) (Seq (Star re_blank) pp_lone)) w) \<and>
    (token_word pp_ts_lex nl pp_sym_nothing w \<longleftrightarrow>
      matches (Alt (Star pp_plain) (Seq (Star re_blank) pp_lone)) w)"
proof (induction w)
  case Nil
  then show ?case
    by (simp add: regex_step item_accepts)
next
  case (Cons c w)
  then show ?case
    using pp_text_states [of w]
    by (auto simp: regex_step item_next hash_text_simps pp_keyword_tokens_def pp_no_nothing)
qed

lemma item_nothing_language:
  "0 \<notin> set w \<Longrightarrow> token_word pp_ts_lex start pp_sym_nothing w \<longleftrightarrow>
     matches (Alt pp_nothing_regex (Seq (Star re_blank) pp_lone)) w"
proof (cases w)
  case Nil
  then show ?thesis
    by (simp add: regex_step item_accepts pp_nothing_regex_def)
next
  case (Cons c v)
  assume "0 \<notin> set w"
  with Cons show ?thesis
    using pp_text_states [of v] blank_nothing_language [of v]
    by (auto simp: regex_step item_next hash_text_simps pp_keyword_tokens_def pp_no_nothing pp_nothing_regex_def)
qed

end

section \<open>The three states for items\<close>

definition pp_after_top :: "codepoint \<Rightarrow> TSStateId option" where
  "pp_after_top = ADVANCE_MAP [(CH_d, 32), (CH_e, 63), (CH_i, 39), (CH_l, 45), (CH_p, 60), (CH_u, 55)]"

definition pp_after_top_nl :: "codepoint \<Rightarrow> TSStateId option" where
  "pp_after_top_nl = ADVANCE_MAP [(CH_d, 32), (CH_i, 39), (CH_u, 55)]"

definition pp_after_if :: "codepoint \<Rightarrow> TSStateId option" where
  "pp_after_if = ADVANCE_MAP [(CH_d, 32), (CH_e, 50), (CH_i, 39), (CH_l, 45), (CH_p, 60), (CH_u, 55)]"

definition pp_after_if_nl :: "codepoint \<Rightarrow> TSStateId option" where
  "pp_after_if_nl = ADVANCE_MAP [(CH_d, 32), (CH_e, 49), (CH_i, 39), (CH_u, 55)]"

definition pp_after_else :: "codepoint \<Rightarrow> TSStateId option" where
  "pp_after_else = ADVANCE_MAP [(CH_d, 32), (CH_e, 54), (CH_i, 39), (CH_l, 45), (CH_p, 60), (CH_u, 55)]"

definition pp_after_else_nl :: "codepoint \<Rightarrow> TSStateId option" where
  "pp_after_else_nl = ADVANCE_MAP [(CH_d, 32), (CH_e, 53), (CH_i, 39), (CH_u, 55)]"

lemmas pp_after_defs =
  pp_after_top_def pp_after_top_nl_def pp_after_if_def pp_after_if_nl_def pp_after_else_def pp_after_else_nl_def

interpretation pp_top: item_states 71 76 77 86 26 88 28 pp_after_top pp_after_top_nl
  by unfold_locales
    (simp_all add: pp_auto pp_lex_defs pp_after_defs pp_keyword_states_def split: if_splits)

interpretation pp_if: item_states 10 79 78 83 23 84 24 pp_after_if pp_after_if_nl
  by unfold_locales
    (simp_all add: pp_auto pp_lex_defs pp_after_defs pp_keyword_states_def split: if_splits)

interpretation pp_else: item_states 11 81 80 85 25 87 27 pp_after_else pp_after_else_nl
  by unfold_locales
    (simp_all add: pp_auto pp_lex_defs pp_after_defs pp_keyword_states_def split: if_splits)

section \<open>The patterns of directives\<close>

abbreviation re_line :: regex where
  "re_line \<equiv> Seq (Star re_dot) (Char CH_LF)"

definition pp_include_keyword :: regex where
  "pp_include_keyword = Seq (Word [CH_i, CH_n, CH_c, CH_l, CH_u, CH_d, CH_e])
     (Seq (Opt (Word [CH_UNDERSCORE, CH_n, CH_e, CH_x, CH_t])) (Star re_space))"

definition pp_define_keyword :: regex where
  "pp_define_keyword = Seq (Word [CH_d, CH_e, CH_f, CH_i, CH_n, CH_e]) (Plus re_space)"

definition pp_undef_keyword :: regex where
  "pp_undef_keyword = Seq (Word [CH_u, CH_n, CH_d, CH_e, CH_f]) (Plus re_space)"

definition pp_if_keyword :: regex where
  "pp_if_keyword = Seq (Alt (Word [CH_i, CH_f, CH_d, CH_e, CH_f])
     (Alt (Word [CH_i, CH_f, CH_n, CH_d, CH_e, CH_f]) (Word [CH_i, CH_f]))) re_line"

definition pp_endif_keyword :: regex where
  "pp_endif_keyword = Seq (Word [CH_e, CH_n, CH_d, CH_i, CH_f]) re_line"

definition pp_elif_keyword :: regex where
  "pp_elif_keyword = Seq (Word [CH_e, CH_l, CH_i, CH_f]) re_line"

definition pp_else_keyword :: regex where
  "pp_else_keyword = Seq (Word [CH_e, CH_l, CH_s, CH_e]) re_line"

definition pp_nothing_keyword :: regex where
  "pp_nothing_keyword = Alt (Word [CH_e, CH_r, CH_r, CH_o, CH_r])
     (Alt (Word [CH_p, CH_r, CH_a, CH_g, CH_m, CH_a]) (Word [CH_l, CH_i, CH_n, CH_e]))"

lemmas pp_keyword_defs =
  pp_include_keyword_def pp_define_keyword_def pp_undef_keyword_def pp_if_keyword_def pp_endif_keyword_def
  pp_elif_keyword_def pp_else_keyword_def pp_nothing_keyword_def

lemmas pp_keyword_languages =
  pp_include_states pp_define_states pp_undef_states pp_if_states pp_endif_states pp_elif_states
  pp_else_states pp_nothing_states

text \<open>The states at which keywords with a common beginning part.\<close>

lemma pp_branch_if:
  "0 \<notin> set w \<Longrightarrow>
     (token_word pp_ts_lex 39 pp_aux_sym_preproc_if_token1 w \<longleftrightarrow> matches (deriv CH_i pp_if_keyword) w)"
  by (cases w) (simp_all add: regex_step pp_auto pp_lex_defs pp_keyword_defs pp_only pp_if_states del: One_nat_def)

lemma pp_branch_include:
  "0 \<notin> set w \<Longrightarrow>
     (token_word pp_ts_lex 39 pp_aux_sym_preproc_include_token1 w \<longleftrightarrow> matches (deriv CH_i pp_include_keyword) w)"
  by (cases w) (simp_all add: regex_step pp_auto pp_lex_defs pp_keyword_defs pp_only pp_include_states del: One_nat_def)

lemma pp_state_46:
  "0 \<notin> set w \<Longrightarrow>
     (token_word pp_ts_lex 46 pp_aux_sym_preproc_elif_token1 w \<longleftrightarrow> matches (Seq (Word [CH_i, CH_f]) re_line) w)"
  by (cases w) (simp_all add: regex_step pp_auto pp_lex_defs pp_keyword_defs pp_only pp_elif_states del: One_nat_def)

lemma pp_state_46_else:
  "0 \<notin> set w \<Longrightarrow>
     (token_word pp_ts_lex 46 pp_aux_sym_preproc_else_token1 w \<longleftrightarrow> matches (Seq (Word [CH_s, CH_e]) re_line) w)"
  by (cases w) (simp_all add: regex_step pp_auto pp_lex_defs pp_keyword_defs pp_only pp_else_states del: One_nat_def)

lemma pp_state_46_other:
  "y \<noteq> pp_aux_sym_preproc_elif_token1 \<Longrightarrow> y \<noteq> pp_aux_sym_preproc_else_token1 \<Longrightarrow> \<not> token_word pp_ts_lex 46 y w"
  by (cases w) (simp_all add: regex_step pp_auto pp_lex_defs pp_only)

lemmas pp_state_46_all = pp_state_46 pp_state_46_else pp_state_46_other

lemma pp_branch_elif:
  "0 \<notin> set w \<Longrightarrow>
     (token_word pp_ts_lex 49 pp_aux_sym_preproc_elif_token1 w \<longleftrightarrow> matches (deriv CH_e pp_elif_keyword) w) \<and>
     (token_word pp_ts_lex 50 pp_aux_sym_preproc_elif_token1 w \<longleftrightarrow> matches (deriv CH_e pp_elif_keyword) w) \<and>
     (token_word pp_ts_lex 53 pp_aux_sym_preproc_elif_token1 w \<longleftrightarrow> False) \<and>
     (token_word pp_ts_lex 54 pp_aux_sym_preproc_elif_token1 w \<longleftrightarrow> False) \<and>
     (token_word pp_ts_lex 63 pp_aux_sym_preproc_elif_token1 w \<longleftrightarrow> False)"
  by (cases w) (simp_all add: regex_step pp_auto pp_lex_defs pp_keyword_defs pp_only pp_state_46_all pp_elif_states del: One_nat_def)

lemma pp_branch_else:
  "0 \<notin> set w \<Longrightarrow>
     (token_word pp_ts_lex 49 pp_aux_sym_preproc_else_token1 w \<longleftrightarrow> matches (deriv CH_e pp_else_keyword) w) \<and>
     (token_word pp_ts_lex 50 pp_aux_sym_preproc_else_token1 w \<longleftrightarrow> matches (deriv CH_e pp_else_keyword) w) \<and>
     (token_word pp_ts_lex 53 pp_aux_sym_preproc_else_token1 w \<longleftrightarrow> False) \<and>
     (token_word pp_ts_lex 54 pp_aux_sym_preproc_else_token1 w \<longleftrightarrow> False) \<and>
     (token_word pp_ts_lex 63 pp_aux_sym_preproc_else_token1 w \<longleftrightarrow> False)"
  by (cases w) (simp_all add: regex_step pp_auto pp_lex_defs pp_keyword_defs pp_only pp_state_46_all pp_else_states del: One_nat_def)

lemma pp_branch_endif:
  "0 \<notin> set w \<Longrightarrow>
     (token_word pp_ts_lex 49 pp_aux_sym_preproc_if_token2 w \<longleftrightarrow> matches (deriv CH_e pp_endif_keyword) w) \<and>
     (token_word pp_ts_lex 50 pp_aux_sym_preproc_if_token2 w \<longleftrightarrow> matches (deriv CH_e pp_endif_keyword) w) \<and>
     (token_word pp_ts_lex 53 pp_aux_sym_preproc_if_token2 w \<longleftrightarrow> matches (deriv CH_e pp_endif_keyword) w) \<and>
     (token_word pp_ts_lex 54 pp_aux_sym_preproc_if_token2 w \<longleftrightarrow> matches (deriv CH_e pp_endif_keyword) w) \<and>
     (token_word pp_ts_lex 63 pp_aux_sym_preproc_if_token2 w \<longleftrightarrow> False)"
  by (cases w) (simp_all add: regex_step pp_auto pp_lex_defs pp_keyword_defs pp_only pp_state_46_all pp_endif_states del: One_nat_def)

lemma pp_branch_nothing:
  "0 \<notin> set w \<Longrightarrow>
     (token_word pp_ts_lex 50 pp_aux_sym_preproc_nothing_token1 w \<longleftrightarrow> matches (deriv CH_e pp_nothing_keyword) w) \<and>
     (token_word pp_ts_lex 54 pp_aux_sym_preproc_nothing_token1 w \<longleftrightarrow> matches (deriv CH_e pp_nothing_keyword) w) \<and>
     (token_word pp_ts_lex 63 pp_aux_sym_preproc_nothing_token1 w \<longleftrightarrow> matches (deriv CH_e pp_nothing_keyword) w) \<and>
     (token_word pp_ts_lex 49 pp_aux_sym_preproc_nothing_token1 w \<longleftrightarrow> False) \<and>
     (token_word pp_ts_lex 53 pp_aux_sym_preproc_nothing_token1 w \<longleftrightarrow> False)"
  by (cases w) (simp_all add: regex_step pp_auto pp_lex_defs pp_keyword_defs pp_only pp_state_46_all pp_nothing_states del: One_nat_def)

lemma pp_branch_l_p:
  "0 \<notin> set w \<Longrightarrow>
     (token_word pp_ts_lex 45 pp_aux_sym_preproc_nothing_token1 w \<longleftrightarrow> matches (deriv CH_l pp_nothing_keyword) w) \<and>
     (token_word pp_ts_lex 60 pp_aux_sym_preproc_nothing_token1 w \<longleftrightarrow> matches (deriv CH_p pp_nothing_keyword) w)"
  by (simp add: pp_nothing_states pp_keyword_defs)

lemmas pp_branches =
  pp_branch_if pp_branch_include pp_branch_elif pp_branch_else pp_branch_endif pp_branch_nothing pp_branch_l_p

lemma pp_only_e:
  "s \<in> set [50, 49, 54, 46, 41, 6, 104, 38, 7, 105, 53, 29, 48, 42, 8, 103, 63, 61, 59, 62, 107] \<Longrightarrow>
   y \<notin> {pp_aux_sym_preproc_if_token2, pp_aux_sym_preproc_elif_token1, pp_aux_sym_preproc_else_token1, pp_aux_sym_preproc_nothing_token1} \<Longrightarrow> \<not> token_word pp_ts_lex s y w"
  by (rule pp_avoid [where S = "[50, 49, 54, 46, 41, 6, 104, 38, 7, 105, 53, 29, 48, 42, 8, 103, 63, 61, 59, 62, 107]"])
    (simp_all add: avoids_def pp_lex_cases_def pp_lex_defs)

lemma pp_only_i:
  "s \<in> set [39, 1, 2, 3, 4, 5, 102, 22, 51, 65, 30, 34, 94, 58, 35, 66, 64, 95] \<Longrightarrow>
   y \<notin> {pp_aux_sym_preproc_if_token1, pp_aux_sym_preproc_include_token1} \<Longrightarrow> \<not> token_word pp_ts_lex s y w"
  by (rule pp_avoid [where S = "[39, 1, 2, 3, 4, 5, 102, 22, 51, 65, 30, 34, 94, 58, 35, 66, 64, 95]"])
    (simp_all add: avoids_def pp_lex_cases_def pp_lex_defs)

lemma pp_only_endif_nothing:
  "s \<in> set [54, 53, 29, 48, 42, 8, 103, 61, 59, 62, 107] \<Longrightarrow>
   y \<notin> {pp_aux_sym_preproc_if_token2, pp_aux_sym_preproc_nothing_token1} \<Longrightarrow> \<not> token_word pp_ts_lex s y w"
  by (rule pp_avoid [where S = "[54, 53, 29, 48, 42, 8, 103, 61, 59, 62, 107]"])
    (simp_all add: avoids_def pp_lex_cases_def pp_lex_defs)

lemma pp_only_conditional:
  "s \<in> set [49, 53, 46, 41, 6, 104, 38, 7, 105, 29, 48, 42, 8, 103] \<Longrightarrow>
   y \<notin> {pp_aux_sym_preproc_elif_token1, pp_aux_sym_preproc_else_token1, pp_aux_sym_preproc_if_token2} \<Longrightarrow>
   \<not> token_word pp_ts_lex s y w"
  by (rule pp_avoid [where S = "[49, 53, 46, 41, 6, 104, 38, 7, 105, 29, 48, 42, 8, 103]"])
    (simp_all add: avoids_def pp_lex_cases_def pp_lex_defs)

section \<open>Which directives a state knows\<close>

lemmas spells_eval = spells_def pp_after_defs matches_Cons pp_only pp_only_e pp_only_i pp_branches

lemma spells_undef:
  "spells pp_after_top pp_aux_sym_undef_token1 pp_undef_keyword"
  "spells pp_after_top_nl pp_aux_sym_undef_token1 pp_undef_keyword"
  "spells pp_after_if pp_aux_sym_undef_token1 pp_undef_keyword"
  "spells pp_after_if_nl pp_aux_sym_undef_token1 pp_undef_keyword"
  "spells pp_after_else pp_aux_sym_undef_token1 pp_undef_keyword"
  "spells pp_after_else_nl pp_aux_sym_undef_token1 pp_undef_keyword"
  by (auto simp: spells_eval pp_keyword_defs pp_undef_states simp del: One_nat_def)

lemma spells_include:
  "spells pp_after_top pp_aux_sym_preproc_include_token1 pp_include_keyword"
  "spells pp_after_top_nl pp_aux_sym_preproc_include_token1 pp_include_keyword"
  "spells pp_after_if pp_aux_sym_preproc_include_token1 pp_include_keyword"
  "spells pp_after_if_nl pp_aux_sym_preproc_include_token1 pp_include_keyword"
  "spells pp_after_else pp_aux_sym_preproc_include_token1 pp_include_keyword"
  "spells pp_after_else_nl pp_aux_sym_preproc_include_token1 pp_include_keyword"
  by (auto simp: spells_eval pp_keyword_defs pp_include_states simp del: One_nat_def)

lemma spells_if:
  "spells pp_after_top pp_aux_sym_preproc_if_token1 pp_if_keyword"
  "spells pp_after_top_nl pp_aux_sym_preproc_if_token1 pp_if_keyword"
  "spells pp_after_if pp_aux_sym_preproc_if_token1 pp_if_keyword"
  "spells pp_after_if_nl pp_aux_sym_preproc_if_token1 pp_if_keyword"
  "spells pp_after_else pp_aux_sym_preproc_if_token1 pp_if_keyword"
  "spells pp_after_else_nl pp_aux_sym_preproc_if_token1 pp_if_keyword"
  by (auto simp: spells_eval pp_keyword_defs pp_if_states simp del: One_nat_def)

lemma spells_elif:
  "spells pp_after_if pp_aux_sym_preproc_elif_token1 pp_elif_keyword"
  "spells pp_after_if_nl pp_aux_sym_preproc_elif_token1 pp_elif_keyword"
  by (auto simp: spells_eval pp_keyword_defs pp_elif_states simp del: One_nat_def)

lemma spells_else:
  "spells pp_after_if pp_aux_sym_preproc_else_token1 pp_else_keyword"
  "spells pp_after_if_nl pp_aux_sym_preproc_else_token1 pp_else_keyword"
  by (auto simp: spells_eval pp_keyword_defs pp_else_states simp del: One_nat_def)

lemma spells_endif:
  "spells pp_after_if pp_aux_sym_preproc_if_token2 pp_endif_keyword"
  "spells pp_after_if_nl pp_aux_sym_preproc_if_token2 pp_endif_keyword"
  "spells pp_after_else pp_aux_sym_preproc_if_token2 pp_endif_keyword"
  "spells pp_after_else_nl pp_aux_sym_preproc_if_token2 pp_endif_keyword"
  by (auto simp: spells_eval pp_keyword_defs pp_endif_states simp del: One_nat_def)

lemma spells_nothing:
  "spells pp_after_top pp_aux_sym_preproc_nothing_token1 pp_nothing_keyword"
  "spells pp_after_if pp_aux_sym_preproc_nothing_token1 pp_nothing_keyword"
  "spells pp_after_else pp_aux_sym_preproc_nothing_token1 pp_nothing_keyword"
  by (auto simp: spells_eval pp_keyword_defs pp_nothing_states simp del: One_nat_def)

lemma spells_define:
  "spells pp_after_top pp_aux_sym_define_token1 pp_define_keyword"
  "spells pp_after_top_nl pp_aux_sym_define_token1 pp_define_keyword"
  "spells pp_after_if pp_aux_sym_define_token1 pp_define_keyword"
  "spells pp_after_if_nl pp_aux_sym_define_token1 pp_define_keyword"
  "spells pp_after_else pp_aux_sym_define_token1 pp_define_keyword"
  "spells pp_after_else_nl pp_aux_sym_define_token1 pp_define_keyword"
  by (auto simp: spells_eval pp_keyword_defs pp_define_states simp del: One_nat_def)

section \<open>The directives of \<^verbatim>\<open>grammar.js\<close>\<close>

definition pp_include_regex :: regex where
  "pp_include_regex = directive pp_include_keyword"

definition pp_define_regex :: regex where
  "pp_define_regex = directive pp_define_keyword"

definition pp_undef_regex :: regex where
  "pp_undef_regex = directive pp_undef_keyword"

definition pp_if_regex :: regex where
  "pp_if_regex = directive pp_if_keyword"

definition pp_endif_regex :: regex where
  "pp_endif_regex = directive pp_endif_keyword"

definition pp_elif_regex :: regex where
  "pp_elif_regex = directive pp_elif_keyword"

definition pp_else_regex :: regex where
  "pp_else_regex = directive pp_else_keyword"

definition pp_nothing_token_regex :: regex where
  "pp_nothing_token_regex = directive pp_nothing_keyword"

lemmas pp_directive_defs =
  pp_include_regex_def pp_define_regex_def pp_undef_regex_def pp_if_regex_def pp_endif_regex_def
  pp_elif_regex_def pp_else_regex_def pp_nothing_token_regex_def

lemma blank_directive:
  "matches (Seq (Star re_blank) (directive k)) w \<longleftrightarrow>
     matches (Seq (Star re_blank) (Seq (Char CH_HASH) (Seq (Star re_space) k))) w"
  unfolding directive_def by (rule matches_Seq_Star_Class) auto

definition pp_item_states :: "TSStateId list" where
  "pp_item_states = [10, 11, 71]"

text \<open>The directives that every state knows.\<close>

lemma pp_directive_language:
  assumes "s \<in> set pp_item_states" and "0 \<notin> set w" and "y \<in> set pp_keyword_tokens"
    and "spells pp_after_top y k" "spells pp_after_top_nl y k" "spells pp_after_if y k" "spells pp_after_if_nl y k"
      "spells pp_after_else y k" "spells pp_after_else_nl y k"
  shows "token_word pp_ts_lex s y w \<longleftrightarrow> matches (Seq (Star re_blank) (directive k)) w"
  using assms pp_top.item_keyword_language [of y k w] pp_if.item_keyword_language [of y k w]
    pp_else.item_keyword_language [of y k w]
  by (auto simp: pp_item_states_def blank_directive)

lemmas pp_common_directive = pp_directive_language [OF _ _ _ spells_include] pp_directive_language [OF _ _ _ spells_define]
  pp_directive_language [OF _ _ _ spells_undef] pp_directive_language [OF _ _ _ spells_if]

text \<open>The directives that end or part a conditional.\<close>

lemma pp_conditional_languages:
  assumes "0 \<notin> set w"
  shows "token_word pp_ts_lex 10 pp_aux_sym_preproc_elif_token1 w \<longleftrightarrow> matches (Seq (Star re_blank) pp_elif_regex) w"
    "token_word pp_ts_lex 10 pp_aux_sym_preproc_else_token1 w \<longleftrightarrow> matches (Seq (Star re_blank) pp_else_regex) w"
    "token_word pp_ts_lex 10 pp_aux_sym_preproc_if_token2 w \<longleftrightarrow> matches (Seq (Star re_blank) pp_endif_regex) w"
    "token_word pp_ts_lex 11 pp_aux_sym_preproc_if_token2 w \<longleftrightarrow> matches (Seq (Star re_blank) pp_endif_regex) w"
  using assms
  by (simp_all add: pp_directive_defs blank_directive pp_if.item_keyword_language pp_else.item_keyword_language
      spells_elif spells_else spells_endif pp_keyword_tokens_def)

lemma pp_conditional_unknown:
  "y \<in> {pp_aux_sym_preproc_elif_token1, pp_aux_sym_preproc_else_token1, pp_aux_sym_preproc_if_token2} \<Longrightarrow>
   \<not> token_word pp_ts_lex 71 y w"
  "y \<in> {pp_aux_sym_preproc_elif_token1, pp_aux_sym_preproc_else_token1} \<Longrightarrow> \<not> token_word pp_ts_lex 11 y w"
  by (rule pp_top.item_unknown;
      auto simp: pp_keyword_tokens_def pp_after_defs pp_only pp_only_i split: if_splits)
    (rule pp_else.item_unknown;
      auto simp: pp_keyword_tokens_def pp_after_defs pp_only pp_only_i pp_only_endif_nothing split: if_splits)

text \<open>
  The directives the grammar reads no further than their name; as an immediate token they do not
  start behind a line end.
\<close>

lemma pp_nothing_directive_language:
  assumes "s \<in> set pp_item_states" and "0 \<notin> set w"
  shows "token_word pp_ts_lex s pp_aux_sym_preproc_nothing_token1 w \<longleftrightarrow> matches pp_nothing_token_regex w"
proof -
  have nl: "\<not> token_word pp_ts_lex t pp_aux_sym_preproc_nothing_token1 v"
    if "pp_after_top_nl c = Some t \<or> pp_after_if_nl c = Some t \<or> pp_after_else_nl c = Some t" for c t v
    using that by (auto simp: pp_after_defs pp_only pp_only_i pp_only_conditional split: if_splits)
  show ?thesis
    using assms nl pp_top.item_immediate_language [OF _ spells_nothing(1), of w]
      pp_if.item_immediate_language [OF _ spells_nothing(2), of w]
      pp_else.item_immediate_language [OF _ spells_nothing(3), of w]
    by (auto simp: pp_item_states_def pp_nothing_token_regex_def pp_keyword_tokens_def)
qed

section \<open>The rest of a directive\<close>

definition pp_line_regex :: regex where
  "pp_line_regex = Star re_dot"

definition pp_path_regex :: regex where
  "pp_path_regex = Star (Class (\<lambda>c. c \<noteq> CH_GT))"

definition pp_identifier_regex :: regex where
  "pp_identifier_regex =
     Seq (Class (\<lambda>c. CH_a \<le> c \<and> c \<le> CH_z \<or> CH_A \<le> c \<and> c \<le> CH_Z \<or> c = CH_UNDERSCORE))
       (Star (Class (\<lambda>c. CH_a \<le> c \<and> c \<le> CH_z \<or> CH_A \<le> c \<and> c \<le> CH_Z \<or> CH_0 \<le> c \<and> c \<le> CH_9 \<or>
          c = CH_UNDERSCORE)))"

lemma pp_continuation_states:
  fixes eol :: regex
  defines "eol \<equiv> Seq (Opt (Char CH_CR)) (Char CH_LF)"
  shows "0 \<notin> set w \<Longrightarrow>
     (token_word pp_ts_lex 93 pp_sym_preproc_continuation_line w \<longleftrightarrow> matches continuation_regex w) \<and>
     (token_word pp_ts_lex 91 pp_sym_preproc_continuation_line w \<longleftrightarrow> matches (Alt continuation_regex eol) w) \<and>
     (token_word pp_ts_lex 92 pp_sym_preproc_continuation_line w \<longleftrightarrow>
        matches (Alt continuation_regex (Char CH_LF)) w) \<and>
     (token_word pp_ts_lex 90 pp_sym_preproc_continuation_line w \<longleftrightarrow> w = [])"
  unfolding eol_def continuation_regex_def
  by (induction w) (simp_all add: regex_step pp_auto pp_lex_defs)

lemma pp_line_states:
  "0 \<notin> set w \<Longrightarrow>
     (token_word pp_ts_lex 93 pp_sym_preproc_line w \<longleftrightarrow> matches pp_line_regex w) \<and>
     (token_word pp_ts_lex 91 pp_sym_preproc_line w \<longleftrightarrow> matches pp_line_regex w) \<and>
     (token_word pp_ts_lex 92 pp_sym_preproc_line w \<longleftrightarrow> matches pp_line_regex w) \<and>
     \<not> token_word pp_ts_lex 90 pp_sym_preproc_line w"
  unfolding pp_line_regex_def
  by (induction w) (simp_all add: regex_step pp_auto pp_lex_defs)

lemma pp_path_states:
  "0 \<notin> set w \<Longrightarrow>
     (token_word pp_ts_lex 98 pp_sym_path w \<longleftrightarrow> matches pp_path_regex w) \<and>
     (token_word pp_ts_lex 99 pp_sym_path w \<longleftrightarrow> matches pp_path_regex w)"
  unfolding pp_path_regex_def
  by (induction w) (auto simp: regex_step pp_auto pp_lex_defs)

text \<open>
  The line end behind a directive: the blanks before the first newline are skipped, and further
  newlines belong to the token.
\<close>

lemma pp_line_end_states:
  "0 \<notin> set w \<Longrightarrow>
     (token_word pp_ts_lex 101 pp_anon_sym_LF w \<longleftrightarrow> matches (Star (Char CH_LF)) w) \<and>
     (token_word pp_ts_lex 9 pp_anon_sym_LF w \<longleftrightarrow>
        matches (Seq (Star (Class (\<lambda>c. c \<noteq> CH_LF \<and> (CH_TAB \<le> c \<and> c \<le> CH_CR \<or> c = CH_SPACE)))) (Plus (Char CH_LF))) w)"
  by (induction w) (auto simp: regex_step pp_auto pp_lex_defs)

text \<open>Lex state 0 reads what follows an include or a define: names, brackets and strings.\<close>

lemma pp_avoid_argument:
  "s \<in> set [15, 69, 108, 16, 70, 109, 17, 19, 18, 112, 113, 12, 114, 96, 97, 110, 111, 73] \<Longrightarrow>
   \<not> token_word pp_ts_lex s pp_sym_identifier w"
  "s \<in> set [16, 70, 109, 17, 19, 18, 112, 113, 12, 114, 96, 97, 110, 111, 73, 74] \<Longrightarrow>
   \<not> token_word pp_ts_lex s pp_aux_sym_string_literal_token1 w"
  by (rule pp_avoid [where S = "[15, 69, 108, 16, 70, 109, 17, 19, 18, 112, 113, 12, 114, 96, 97, 110, 111, 73]"]
        pp_avoid [where S = "[16, 70, 109, 17, 19, 18, 112, 113, 12, 114, 96, 97, 110, 111, 73, 74]"];
      simp add: avoids_def pp_lex_cases_def pp_lex_defs)+

lemma pp_avoid_hash:
  "s \<in> set (23 # 24 # pp_keyword_states) \<Longrightarrow> y \<notin> set pp_keyword_tokens \<Longrightarrow> \<not> token_word pp_ts_lex s y w"
  by (rule pp_avoid [where S = "23 # 24 # pp_keyword_states"])
    (simp_all add: pp_keyword_states_def pp_keyword_tokens_def avoids_def pp_lex_cases_def pp_lex_defs)

lemma pp_identifier_state:
  "0 \<notin> set w \<Longrightarrow> token_word pp_ts_lex 74 pp_sym_identifier w \<longleftrightarrow>
     matches (Star (Class (\<lambda>c. CH_a \<le> c \<and> c \<le> CH_z \<or> CH_A \<le> c \<and> c \<le> CH_Z \<or> CH_0 \<le> c \<and> c \<le> CH_9 \<or>
          c = CH_UNDERSCORE))) w"
  by (induction w) (auto simp: regex_step pp_auto pp_lex_defs)

definition pp_letter :: "codepoint \<Rightarrow> bool" where
  "pp_letter c \<longleftrightarrow> CH_A \<le> c \<and> c \<le> CH_Z \<or> c = CH_UNDERSCORE \<or> CH_a \<le> c \<and> c \<le> CH_z"

definition pp_argument_step :: "TSStateId \<Rightarrow> TSStateId \<Rightarrow> TSStateId \<Rightarrow> bool \<Rightarrow> codepoint \<Rightarrow> TSStateId option" where
  "pp_argument_step hash sp nl digits c =
     (if c = CH_DQUOTE then Some 15 else if c = CH_HASH then Some hash else if c = CH_QUOTE then Some 16
      else if c = CH_SLASH then Some 17 else if c = CH_LT then Some 96 else if c = CH_GT then Some 97
      else if c = CH_TAB \<or> c = CH_SPACE then Some sp else if CH_LF \<le> c \<and> c \<le> CH_CR then Some nl
      else if digits \<and> CH_0 \<le> c \<and> c \<le> CH_9 then Some 110 else if pp_letter c then Some 74 else None)"

lemma pp_argument_next:
  "lex_next pp_ts_lex 0 c = pp_argument_step 23 13 72 True c"
  "lex_next pp_ts_lex 13 c = pp_argument_step 23 13 14 False c"
  "lex_next pp_ts_lex 14 c = pp_argument_step 24 14 14 False c"
  "lex_next pp_ts_lex 72 c = pp_argument_step 24 14 72 False c"
  by (simp_all add: pp_auto pp_lex_defs pp_argument_step_def pp_letter_def)

abbreviation pp_blank :: "codepoint \<Rightarrow> bool" where
  "pp_blank c \<equiv> CH_TAB \<le> c \<and> c \<le> CH_CR \<or> c = CH_SPACE"

lemma pp_argument_blank:
  "pp_blank c \<Longrightarrow> pp_argument_step hash sp nl digits c = Some (if c = CH_TAB \<or> c = CH_SPACE then sp else nl)"
  by (elim disjE) (simp_all add: pp_argument_step_def)

lemma pp_argument_letter: "pp_letter c \<Longrightarrow> pp_argument_step hash sp nl digits c = Some 74"
  unfolding pp_letter_def by (elim disjE) (simp_all add: pp_argument_step_def pp_letter_def)

lemma pp_argument_other:
  assumes "\<not> pp_blank c" and "\<not> pp_letter c" and "pp_argument_step hash sp nl digits c = Some t"
  shows "t \<in> {15, 16, 17, 96, 97, 110, hash}"
proof -
  have "c \<noteq> CH_TAB" "c \<noteq> CH_SPACE" "\<not> (CH_LF \<le> c \<and> c \<le> CH_CR)"
    using assms(1) by auto
  with assms(2,3) show ?thesis
    by (simp add: pp_argument_step_def split: if_splits)
qed

text \<open>The four states that skip the blanks before an argument.\<close>

lemma pp_argument_states:
  assumes "s \<in> {0, 13, 14, 72}"
  obtains hash sp nl digits where "\<And>c. lex_next pp_ts_lex s c = pp_argument_step hash sp nl digits c"
    and "hash \<in> {23, 24}" and "sp \<in> {0, 13, 14, 72}" and "nl \<in> {0, 13, 14, 72}"
proof -
  consider "s = 0" | "s = 13" | "s = 14" | "s = 72"
    using assms by blast
  then show thesis
    by cases (use that pp_argument_next in blast)+
qed

lemma pp_identifier_cons:
  "matches (Seq (Star re_blank) pp_identifier_regex) (c # w) \<longleftrightarrow>
     pp_blank c \<and> matches (Seq (Star re_blank) pp_identifier_regex) w \<or>
     pp_letter c \<and> matches (Star (Class (\<lambda>c. CH_a \<le> c \<and> c \<le> CH_z \<or> CH_A \<le> c \<and> c \<le> CH_Z \<or>
       CH_0 \<le> c \<and> c \<le> CH_9 \<or> c = CH_UNDERSCORE))) w"
  by (auto simp: matches_Cons pp_identifier_regex_def pp_letter_def)

lemma pp_identifier_states:
  "0 \<notin> set w \<Longrightarrow> s \<in> {0, 13, 14, 72} \<Longrightarrow>
     token_word pp_ts_lex s pp_sym_identifier w \<longleftrightarrow> matches (Seq (Star re_blank) pp_identifier_regex) w"
proof (induction w arbitrary: s)
  case Nil
  then show ?case
    by (auto simp: regex_step pp_switch.state_accepts_eq pp_lex_cases_def pp_lex_0_def pp_lex_13_def pp_lex_14_def
        pp_lex_72_def pp_identifier_regex_def)
next
  case (Cons c w)
  from Cons.prems(2) obtain hash sp nl digits
    where step: "lex_next pp_ts_lex s c = pp_argument_step hash sp nl digits c"
      and states: "hash \<in> {23, 24}" "sp \<in> {0, 13, 14, 72}" "nl \<in> {0, 13, 14, 72}"
    by (rule pp_argument_states) blast
  consider "pp_blank c" | "pp_letter c" "\<not> pp_blank c" | "\<not> pp_blank c" "\<not> pp_letter c"
    by blast
  then show ?case
  proof cases
    case 1
    then have "\<not> pp_letter c"
      by (auto simp: pp_letter_def)
    with 1 Cons states show ?thesis
      by (simp add: token_word_Cons step pp_argument_blank pp_identifier_cons)
  next
    case 2
    with Cons.prems pp_identifier_state [of w] show ?thesis
      by (auto simp: token_word_Cons step pp_argument_letter pp_identifier_cons simp del: One_nat_def)
  next
    case 3
    have "\<not> token_word pp_ts_lex t pp_sym_identifier w" if "pp_argument_step hash sp nl digits c = Some t" for t
      using pp_argument_other [OF 3 that] states(1)
      by (auto simp: pp_avoid_argument pp_avoid_hash pp_keyword_tokens_def simp del: One_nat_def)
    with 3 show ?thesis
      by (auto simp: token_word_Cons step pp_identifier_cons split: option.split simp del: One_nat_def)
  qed
qed

end
