(* ===== verification/Preproc_Text.thy ===== *)
theory Preproc_Text
  imports Preproc_Tokens
begin

text \<open>
  What the \<^verbatim>\<open>preproc\<close> lexer does: maximal munch for any runtime, and its token languages
  in the lex states the parser uses.
\<close>

interpretation pp_cursor: lexer_on_text cursor_runtime cur_ahead cur_marked pp_ts_lex 115
  by (rule lexer_on_text.intro [OF cursor_text_runtime pp_switch.closed_switch_axioms])

lemma pp_on_text:
  "text_runtime R ahead marked \<Longrightarrow> lexer_on_text R ahead marked pp_ts_lex 115"
  by (rule lexer_on_text.intro [OF _ pp_switch.closed_switch_axioms])

lemmas pp_lex_fn_token = lexer_on_text.lex_fn_token [OF pp_on_text]

lemmas pp_munch_eval =
  better_def pp_switch.switch_eval pp_lex_cases_def pp_lex_defs

lemmas pp_item_languages =
  pp_top.item_comment_language pp_if.item_comment_language pp_else.item_comment_language
  pp_top.item_string_language pp_if.item_string_language pp_else.item_string_language
  pp_top.item_char_language pp_if.item_char_language pp_else.item_char_language
  pp_top.item_integer_language pp_if.item_integer_language pp_else.item_integer_language
  pp_top.item_nothing_language pp_if.item_nothing_language pp_else.item_nothing_language

section \<open>Properties\<close>

text \<open>
  Property C21. In each of the three states that start a top-level item, the tokens that are no
  directives are, on words without NUL, exactly the patterns of the grammar: a comment may have blanks
  before it, string, character and integer literals may not, and the catch-all token is its pattern or,
  behind blanks, a lone R, hash sign or slash.
\<close>

theorem pp_token_languages:
  assumes "s \<in> set pp_item_states" and "0 \<notin> set w"
  shows "(token_word pp_ts_lex s pp_sym_comment w \<longleftrightarrow> matches (Seq (Star re_blank) comment_regex) w) \<and>
    (token_word pp_ts_lex s pp_aux_sym_string_literal_token1 w \<longleftrightarrow> matches string_regex w) \<and>
    (token_word pp_ts_lex s pp_aux_sym_char_literal_token1 w \<longleftrightarrow> matches char_regex w) \<and>
    (token_word pp_ts_lex s pp_sym_integer_literal w \<longleftrightarrow> matches pp_integer_regex w) \<and>
    (token_word pp_ts_lex s pp_sym_nothing w \<longleftrightarrow>
       matches (Alt pp_nothing_regex (Seq (Star re_blank) pp_lone)) w)"
  using assms pp_item_languages [of w] by (auto simp only: pp_item_states_def set_simps insert_iff empty_iff)

theorem pp_token_languages_witness:
  "token_word pp_ts_lex 10 pp_sym_integer_literal [CH_9, CH_QUOTE, CH_0] \<and> matches pp_integer_regex [CH_9, CH_QUOTE, CH_0]"
proof -
  have "matches pp_integer_regex [CH_9, CH_QUOTE, CH_0]"
    by (simp add: regex_step pp_integer_regex_def)
  then show ?thesis
    using pp_token_languages [of 10 "[CH_9, CH_QUOTE, CH_0]"] by (simp add: pp_item_states_def)
qed

text \<open>
  Property C22. The directives every item state knows. An include, a define, an undef or the start of a
  conditional is its pattern with any blanks, line ends included, before it; the directives the grammar
  reads no further than their name (error, pragma, line) are their pattern alone, without a line end
  before it.
\<close>

theorem pp_directive_languages:
  assumes "s \<in> set pp_item_states" and "0 \<notin> set w"
  shows "(token_word pp_ts_lex s pp_aux_sym_preproc_include_token1 w \<longleftrightarrow>
      matches (Seq (Star re_blank) pp_include_regex) w) \<and>
    (token_word pp_ts_lex s pp_aux_sym_define_token1 w \<longleftrightarrow> matches (Seq (Star re_blank) pp_define_regex) w) \<and>
    (token_word pp_ts_lex s pp_aux_sym_undef_token1 w \<longleftrightarrow> matches (Seq (Star re_blank) pp_undef_regex) w) \<and>
    (token_word pp_ts_lex s pp_aux_sym_preproc_if_token1 w \<longleftrightarrow> matches (Seq (Star re_blank) pp_if_regex) w) \<and>
    (token_word pp_ts_lex s pp_aux_sym_preproc_nothing_token1 w \<longleftrightarrow> matches pp_nothing_token_regex w)"
  using assms by (simp add: pp_common_directive pp_nothing_directive_language pp_directive_defs pp_keyword_tokens_def)

theorem pp_directive_languages_witness:
  "token_word pp_ts_lex 71 pp_aux_sym_preproc_if_token1 [CH_HASH, CH_SPACE, CH_i, CH_f, CH_SPACE, CH_x, CH_LF] \<and>
   matches (Seq (Star re_blank) pp_if_regex) [CH_HASH, CH_SPACE, CH_i, CH_f, CH_SPACE, CH_x, CH_LF]"
proof -
  have "matches (Seq (Star re_blank) pp_if_regex) [CH_HASH, CH_SPACE, CH_i, CH_f, CH_SPACE, CH_x, CH_LF]"
    by (simp add: regex_step pp_if_regex_def directive_def pp_if_keyword_def)
  then show ?thesis
    using pp_directive_languages [of 71 "[CH_HASH, CH_SPACE, CH_i, CH_f, CH_SPACE, CH_x, CH_LF]"]
    by (simp add: pp_item_states_def)
qed

text \<open>
  The lexer knows the directives that part or end a conditional only where the parser can
  take them: inside a branch that others may follow (state 10) all three, in the last branch
  (state 11) only the end, at the top of a file (state 71) none.
\<close>

theorem pp_conditional_directives:
  assumes "0 \<notin> set w"
  shows "(token_word pp_ts_lex 10 pp_aux_sym_preproc_elif_token1 w \<longleftrightarrow> matches (Seq (Star re_blank) pp_elif_regex) w) \<and>
    (token_word pp_ts_lex 10 pp_aux_sym_preproc_else_token1 w \<longleftrightarrow> matches (Seq (Star re_blank) pp_else_regex) w) \<and>
    (token_word pp_ts_lex 10 pp_aux_sym_preproc_if_token2 w \<longleftrightarrow> matches (Seq (Star re_blank) pp_endif_regex) w) \<and>
    (token_word pp_ts_lex 11 pp_aux_sym_preproc_if_token2 w \<longleftrightarrow> matches (Seq (Star re_blank) pp_endif_regex) w) \<and>
    \<not> token_word pp_ts_lex 11 pp_aux_sym_preproc_elif_token1 w \<and>
    \<not> token_word pp_ts_lex 11 pp_aux_sym_preproc_else_token1 w \<and>
    \<not> token_word pp_ts_lex 71 pp_aux_sym_preproc_elif_token1 w \<and>
    \<not> token_word pp_ts_lex 71 pp_aux_sym_preproc_else_token1 w \<and>
    \<not> token_word pp_ts_lex 71 pp_aux_sym_preproc_if_token2 w"
  using pp_conditional_languages [OF assms] by (simp add: pp_conditional_unknown)

theorem pp_conditional_directives_witness:
  "token_word pp_ts_lex 11 pp_aux_sym_preproc_if_token2 [CH_HASH, CH_e, CH_n, CH_d, CH_i, CH_f, CH_LF] \<and>
   \<not> token_word pp_ts_lex 71 pp_aux_sym_preproc_if_token2 [CH_HASH, CH_e, CH_n, CH_d, CH_i, CH_f, CH_LF]"
proof -
  have "matches (Seq (Star re_blank) pp_endif_regex) [CH_HASH, CH_e, CH_n, CH_d, CH_i, CH_f, CH_LF]"
    by (simp add: regex_step pp_endif_regex_def directive_def pp_endif_keyword_def)
  then show ?thesis
    using pp_conditional_directives [of "[CH_HASH, CH_e, CH_n, CH_d, CH_i, CH_f, CH_LF]"] by simp
qed

text \<open>
  What follows a directive's name. The rest of a line (state 93) is any text without a
  newline, empty included, and a continuation line also has its escaped line end; the path of an
  include (state 98) runs to the closing bracket; a name (state 0) may have blanks before it; the end of
  the line (state 9) takes blanks before the first newline and further newlines with it.
\<close>

theorem pp_argument_languages:
  assumes "0 \<notin> set w"
  shows "(token_word pp_ts_lex 93 pp_sym_preproc_line w \<longleftrightarrow> matches pp_line_regex w) \<and>
    (token_word pp_ts_lex 93 pp_sym_preproc_continuation_line w \<longleftrightarrow> matches continuation_regex w) \<and>
    (token_word pp_ts_lex 98 pp_sym_path w \<longleftrightarrow> matches pp_path_regex w) \<and>
    (token_word pp_ts_lex 0 pp_sym_identifier w \<longleftrightarrow> matches (Seq (Star re_blank) pp_identifier_regex) w) \<and>
    (token_word pp_ts_lex 9 pp_anon_sym_LF w \<longleftrightarrow>
       matches (Seq (Star (Class (\<lambda>c. c \<noteq> CH_LF \<and> (CH_TAB \<le> c \<and> c \<le> CH_CR \<or> c = CH_SPACE)))) (Plus (Char CH_LF))) w)"
  using pp_line_states [OF assms] pp_continuation_states [OF assms] pp_path_states [OF assms]
    pp_identifier_states [OF assms, of 0] pp_line_end_states [OF assms] by simp

theorem pp_argument_languages_witness:
  "token_word pp_ts_lex 0 pp_sym_identifier [CH_SPACE, CH_UNDERSCORE, CH_9]"
proof -
  have "matches (Seq (Star re_blank) pp_identifier_regex) [CH_SPACE, CH_UNDERSCORE, CH_9]"
    by (simp add: regex_step pp_identifier_regex_def)
  then show ?thesis
    using pp_argument_languages [of "[CH_SPACE, CH_UNDERSCORE, CH_9]"] by simp
qed

text \<open>
  Property C36. A pragma, error or line directive whose token starts at a line end, as it does right
  behind an include or a line comment, is not recognised: the lexer takes the line end and the hash sign for
  catch-all text and leaves the name to be lexed on its own, so a quote in the message of an
  \<^verbatim>\<open>#error\<close> opens a literal.
\<close>

theorem pp_directive_after_line_end:
  assumes "text_runtime R ahead marked" and "s \<in> set pp_item_states"
    and "name = [CH_p] \<or> name = [CH_l] \<or> name = [CH_e, CH_r]"
    and "ahead (rt_state L) = CH_LF # CH_HASH # name @ w"
  shows "\<exists>L'. lex_fn R pp_ts_lex s L = Some (True, L') \<and> result_symbol L' = pp_sym_nothing \<and>
    marked (rt_state L') = name @ w"
proof -
  have "munch pp_ts_lex s None (CH_LF # CH_HASH # name @ w) = Some (pp_sym_nothing, name @ w)"
    using assms(2,3) by (auto simp: pp_item_states_def pp_munch_eval)
  then show ?thesis
    using pp_lex_fn_token [OF assms(1), of s L] assms(2,4) by (auto simp: pp_item_states_def)
qed

theorem pp_directive_after_line_end_witness:
  "\<exists>L'. lex_fn cursor_runtime pp_ts_lex 71
      (text_lexer [CH_LF, CH_HASH, CH_p, CH_r, CH_a, CH_g, CH_m, CH_a]) = Some (True, L') \<and>
    result_symbol L' = pp_sym_nothing \<and> cur_marked (rt_state L') = [CH_p, CH_r, CH_a, CH_g, CH_m, CH_a]"
  using pp_directive_after_line_end [OF cursor_text_runtime, of 71 "[CH_p]"
      "text_lexer [CH_LF, CH_HASH, CH_p, CH_r, CH_a, CH_g, CH_m, CH_a]"]
  by (simp add: text_lexer_ahead pp_item_states_def)

end
