(* ===== verification/Preproc_Table.thy ===== *)
theory Preproc_Table
  imports Preproc_Lex Lr_Tables
begin

text \<open>
  The tables of the \<^verbatim>\<open>preproc\<close> grammar
  (\<^verbatim>\<open>tree-sitter-preproc/src/parser.c\<close>): symbol names and metadata, lex modes, parse
  table, small parse table, parse actions, external tokens, and the language object that ties them
  together. Each list is the C initialiser, designators included.
\<close>

section \<open>Sizes\<close>

abbreviation (input) pp_LANGUAGE_VERSION :: nat where "pp_LANGUAGE_VERSION \<equiv> 14"
abbreviation (input) pp_STATE_COUNT :: nat where "pp_STATE_COUNT \<equiv> 121"
abbreviation (input) pp_LARGE_STATE_COUNT :: nat where "pp_LARGE_STATE_COUNT \<equiv> 16"
abbreviation (input) pp_SYMBOL_COUNT :: nat where "pp_SYMBOL_COUNT \<equiv> 36"
abbreviation (input) pp_ALIAS_COUNT :: nat where "pp_ALIAS_COUNT \<equiv> 0"
abbreviation (input) pp_TOKEN_COUNT :: nat where "pp_TOKEN_COUNT \<equiv> 22"
abbreviation (input) pp_EXTERNAL_TOKEN_COUNT :: nat where "pp_EXTERNAL_TOKEN_COUNT \<equiv> 1"
abbreviation (input) pp_FIELD_COUNT :: nat where "pp_FIELD_COUNT \<equiv> 0"
abbreviation (input) pp_MAX_ALIAS_SEQUENCE_LENGTH :: nat where "pp_MAX_ALIAS_SEQUENCE_LENGTH \<equiv> 5"
abbreviation (input) pp_MAX_RESERVED_WORD_SET_SIZE :: nat where "pp_MAX_RESERVED_WORD_SET_SIZE \<equiv> 0"
abbreviation (input) pp_PRODUCTION_ID_COUNT :: nat where "pp_PRODUCTION_ID_COUNT \<equiv> 1"
abbreviation (input) pp_SUPERTYPE_COUNT :: nat where "pp_SUPERTYPE_COUNT \<equiv> 0"

section \<open>Symbols\<close>

definition pp_ts_symbol_names :: "(nat \<times> string) list" where
  "pp_ts_symbol_names =
    [(ts_builtin_sym_end, ''end''),
     (pp_sym_identifier, ''identifier''),
     (pp_sym_nothing, ''nothing''),
     (pp_sym_preproc_continuation_line, ''preproc_continuation_line''),
     (pp_sym_preproc_line, ''preproc_line''),
     (pp_aux_sym_preproc_include_token1, ''preproc_include_token1''),
     (pp_anon_sym_LT, ''<''),
     (pp_anon_sym_GT, ''>''),
     (pp_sym_path, ''path''),
     (pp_aux_sym_define_token1, ''define_token1''),
     (pp_anon_sym_LF, [CHR 0x0A]),
     (pp_aux_sym_preproc_if_token1, ''preproc_if_token1''),
     (pp_aux_sym_preproc_if_token2, ''preproc_if_token2''),
     (pp_aux_sym_preproc_elif_token1, ''preproc_elif_token1''),
     (pp_aux_sym_preproc_else_token1, ''preproc_else_token1''),
     (pp_aux_sym_undef_token1, ''undef_token1''),
     (pp_aux_sym_preproc_nothing_token1, ''preproc_nothing_token1''),
     (pp_aux_sym_string_literal_token1, ''string_literal_token1''),
     (pp_aux_sym_char_literal_token1, ''char_literal_token1''),
     (pp_sym_integer_literal, ''integer_literal''),
     (pp_sym_comment, ''comment''),
     (pp_sym_raw_string_literal, ''raw_string_literal''),
     (pp_sym_translation_unit, ''translation_unit''),
     (pp_sym__top_level_item, ''_top_level_item''),
     (pp_sym_preproc_include, ''preproc_include''),
     (pp_sym_define, ''define''),
     (pp_sym_preproc_if, ''preproc_if''),
     (pp_sym_preproc_elif, ''preproc_elif''),
     (pp_sym_preproc_else, ''preproc_else''),
     (pp_sym_undef, ''undef''),
     (pp_sym_preproc_nothing, ''preproc_nothing''),
     (pp_sym_string_literal, ''string_literal''),
     (pp_sym_char_literal, ''char_literal''),
     (pp_aux_sym_translation_unit_repeat1, ''translation_unit_repeat1''),
     (pp_aux_sym_define_repeat1, ''define_repeat1''),
     (pp_aux_sym_preproc_if_repeat1, ''preproc_if_repeat1'')]"

definition pp_ts_symbol_map :: "(nat \<times> TSSymbol) list" where
  "pp_ts_symbol_map =
    [(ts_builtin_sym_end, ts_builtin_sym_end),
     (pp_sym_identifier, pp_sym_identifier),
     (pp_sym_nothing, pp_sym_nothing),
     (pp_sym_preproc_continuation_line, pp_sym_preproc_continuation_line),
     (pp_sym_preproc_line, pp_sym_preproc_line),
     (pp_aux_sym_preproc_include_token1, pp_aux_sym_preproc_include_token1),
     (pp_anon_sym_LT, pp_anon_sym_LT),
     (pp_anon_sym_GT, pp_anon_sym_GT),
     (pp_sym_path, pp_sym_path),
     (pp_aux_sym_define_token1, pp_aux_sym_define_token1),
     (pp_anon_sym_LF, pp_anon_sym_LF),
     (pp_aux_sym_preproc_if_token1, pp_aux_sym_preproc_if_token1),
     (pp_aux_sym_preproc_if_token2, pp_aux_sym_preproc_if_token2),
     (pp_aux_sym_preproc_elif_token1, pp_aux_sym_preproc_elif_token1),
     (pp_aux_sym_preproc_else_token1, pp_aux_sym_preproc_else_token1),
     (pp_aux_sym_undef_token1, pp_aux_sym_undef_token1),
     (pp_aux_sym_preproc_nothing_token1, pp_aux_sym_preproc_nothing_token1),
     (pp_aux_sym_string_literal_token1, pp_aux_sym_string_literal_token1),
     (pp_aux_sym_char_literal_token1, pp_aux_sym_char_literal_token1),
     (pp_sym_integer_literal, pp_sym_integer_literal),
     (pp_sym_comment, pp_sym_comment),
     (pp_sym_raw_string_literal, pp_sym_raw_string_literal),
     (pp_sym_translation_unit, pp_sym_translation_unit),
     (pp_sym__top_level_item, pp_sym__top_level_item),
     (pp_sym_preproc_include, pp_sym_preproc_include),
     (pp_sym_define, pp_sym_define),
     (pp_sym_preproc_if, pp_sym_preproc_if),
     (pp_sym_preproc_elif, pp_sym_preproc_elif),
     (pp_sym_preproc_else, pp_sym_preproc_else),
     (pp_sym_undef, pp_sym_undef),
     (pp_sym_preproc_nothing, pp_sym_preproc_nothing),
     (pp_sym_string_literal, pp_sym_string_literal),
     (pp_sym_char_literal, pp_sym_char_literal),
     (pp_aux_sym_translation_unit_repeat1, pp_aux_sym_translation_unit_repeat1),
     (pp_aux_sym_define_repeat1, pp_aux_sym_define_repeat1),
     (pp_aux_sym_preproc_if_repeat1, pp_aux_sym_preproc_if_repeat1)]"

text \<open>\<^verbatim>\<open>.supertype\<close> is left out of the initialisers, so it is false.\<close>

definition pp_ts_symbol_metadata :: "(nat \<times> TSSymbolMetadata) list" where
  "pp_ts_symbol_metadata =
    [(ts_builtin_sym_end, \<lparr>visible = False, named = True, supertype = False\<rparr>),
     (pp_sym_identifier, \<lparr>visible = True, named = True, supertype = False\<rparr>),
     (pp_sym_nothing, \<lparr>visible = True, named = True, supertype = False\<rparr>),
     (pp_sym_preproc_continuation_line, \<lparr>visible = True, named = True, supertype =
       False\<rparr>),
     (pp_sym_preproc_line, \<lparr>visible = True, named = True, supertype = False\<rparr>),
     (pp_aux_sym_preproc_include_token1, \<lparr>visible = False, named = False, supertype =
       False\<rparr>),
     (pp_anon_sym_LT, \<lparr>visible = True, named = False, supertype = False\<rparr>),
     (pp_anon_sym_GT, \<lparr>visible = True, named = False, supertype = False\<rparr>),
     (pp_sym_path, \<lparr>visible = True, named = True, supertype = False\<rparr>),
     (pp_aux_sym_define_token1, \<lparr>visible = False, named = False, supertype =
       False\<rparr>),
     (pp_anon_sym_LF, \<lparr>visible = True, named = False, supertype = False\<rparr>),
     (pp_aux_sym_preproc_if_token1, \<lparr>visible = False, named = False, supertype =
       False\<rparr>),
     (pp_aux_sym_preproc_if_token2, \<lparr>visible = False, named = False, supertype =
       False\<rparr>),
     (pp_aux_sym_preproc_elif_token1, \<lparr>visible = False, named = False, supertype =
       False\<rparr>),
     (pp_aux_sym_preproc_else_token1, \<lparr>visible = False, named = False, supertype =
       False\<rparr>),
     (pp_aux_sym_undef_token1, \<lparr>visible = False, named = False, supertype = False\<rparr>),
     (pp_aux_sym_preproc_nothing_token1, \<lparr>visible = False, named = False, supertype =
       False\<rparr>),
     (pp_aux_sym_string_literal_token1, \<lparr>visible = False, named = False, supertype =
       False\<rparr>),
     (pp_aux_sym_char_literal_token1, \<lparr>visible = False, named = False, supertype =
       False\<rparr>),
     (pp_sym_integer_literal, \<lparr>visible = True, named = True, supertype = False\<rparr>),
     (pp_sym_comment, \<lparr>visible = True, named = True, supertype = False\<rparr>),
     (pp_sym_raw_string_literal, \<lparr>visible = True, named = True, supertype = False\<rparr>),
     (pp_sym_translation_unit, \<lparr>visible = True, named = True, supertype = False\<rparr>),
     (pp_sym__top_level_item, \<lparr>visible = False, named = True, supertype = False\<rparr>),
     (pp_sym_preproc_include, \<lparr>visible = True, named = True, supertype = False\<rparr>),
     (pp_sym_define, \<lparr>visible = True, named = True, supertype = False\<rparr>),
     (pp_sym_preproc_if, \<lparr>visible = True, named = True, supertype = False\<rparr>),
     (pp_sym_preproc_elif, \<lparr>visible = True, named = True, supertype = False\<rparr>),
     (pp_sym_preproc_else, \<lparr>visible = True, named = True, supertype = False\<rparr>),
     (pp_sym_undef, \<lparr>visible = True, named = True, supertype = False\<rparr>),
     (pp_sym_preproc_nothing, \<lparr>visible = True, named = True, supertype = False\<rparr>),
     (pp_sym_string_literal, \<lparr>visible = True, named = True, supertype = False\<rparr>),
     (pp_sym_char_literal, \<lparr>visible = True, named = True, supertype = False\<rparr>),
     (pp_aux_sym_translation_unit_repeat1, \<lparr>visible = False, named = False, supertype =
       False\<rparr>),
     (pp_aux_sym_define_repeat1, \<lparr>visible = False, named = False, supertype =
       False\<rparr>),
     (pp_aux_sym_preproc_if_repeat1, \<lparr>visible = False, named = False, supertype =
       False\<rparr>)]"

definition pp_ts_alias_sequences :: "(nat \<times> (nat \<times> TSSymbol) list) list" where
  "pp_ts_alias_sequences =
    [(0, [(0, 0)])]"

definition pp_ts_non_terminal_alias_map :: "nat list" where
  "pp_ts_non_terminal_alias_map =
    [0]"

definition pp_ts_primary_state_ids :: "(nat \<times> TSStateId) list" where
  "pp_ts_primary_state_ids =
    [(0, 0), (1, 1), (2, 2), (3, 3), (4, 3), (5, 2), (6, 3), (7, 2), (8, 8), (9, 9),
     (10, 10), (11, 11), (12, 12), (13, 13), (14, 8), (15, 8), (16, 16), (17, 17), (18, 18), (19,
       19),
     (20, 20), (21, 21), (22, 22), (23, 23), (24, 24), (25, 25), (26, 26), (27, 27), (28, 28),
       (29, 29),
     (30, 16), (31, 17), (32, 22), (33, 18), (34, 19), (35, 23), (36, 24), (37, 25), (38, 26),
       (39, 27),
     (40, 28), (41, 29), (42, 20), (43, 16), (44, 18), (45, 19), (46, 20), (47, 21), (48, 22),
       (49, 23),
     (50, 24), (51, 25), (52, 26), (53, 27), (54, 28), (55, 29), (56, 17), (57, 21), (58, 58),
       (59, 59),
     (60, 58), (61, 58), (62, 59), (63, 59), (64, 64), (65, 65), (66, 65), (67, 65), (68, 68),
       (69, 69),
     (70, 69), (71, 71), (72, 68), (73, 73), (74, 74), (75, 75), (76, 75), (77, 73), (78, 75),
       (79, 79),
     (80, 79), (81, 71), (82, 69), (83, 68), (84, 79), (85, 71), (86, 73), (87, 87), (88, 88),
       (89, 89),
     (90, 90), (91, 91), (92, 92), (93, 93), (94, 94), (95, 95), (96, 88), (97, 97), (98, 93),
       (99, 97),
     (100, 100), (101, 94), (102, 89), (103, 87), (104, 89), (105, 90), (106, 92), (107, 94),
       (108, 87), (109, 100),
     (110, 90), (111, 92), (112, 93), (113, 97), (114, 100), (115, 115), (116, 91), (117, 95),
       (118, 91), (119, 95),
     (120, 88)]"

section \<open>Lex modes\<close>

definition pp_ts_lex_modes :: "(nat \<times> TSLexMode) list" where
  "pp_ts_lex_modes =
    [(0, \<lparr>lex_state = 0, external_lex_state = 1\<rparr>), (1, \<lparr>lex_state = 71,
      external_lex_state = 1\<rparr>),
     (2, \<lparr>lex_state = 10, external_lex_state = 1\<rparr>), (3, \<lparr>lex_state = 10,
       external_lex_state = 1\<rparr>),
     (4, \<lparr>lex_state = 10, external_lex_state = 1\<rparr>), (5, \<lparr>lex_state = 10,
       external_lex_state = 1\<rparr>),
     (6, \<lparr>lex_state = 10, external_lex_state = 1\<rparr>), (7, \<lparr>lex_state = 10,
       external_lex_state = 1\<rparr>),
     (8, \<lparr>lex_state = 10, external_lex_state = 1\<rparr>), (9, \<lparr>lex_state = 10,
       external_lex_state = 1\<rparr>),
     (10, \<lparr>lex_state = 10, external_lex_state = 1\<rparr>), (11, \<lparr>lex_state = 11,
       external_lex_state = 1\<rparr>),
     (12, \<lparr>lex_state = 71, external_lex_state = 1\<rparr>), (13, \<lparr>lex_state = 11,
       external_lex_state = 1\<rparr>),
     (14, \<lparr>lex_state = 71, external_lex_state = 1\<rparr>), (15, \<lparr>lex_state = 11,
       external_lex_state = 1\<rparr>),
     (16, \<lparr>lex_state = 10, external_lex_state = 1\<rparr>), (17, \<lparr>lex_state = 10,
       external_lex_state = 1\<rparr>),
     (18, \<lparr>lex_state = 10, external_lex_state = 1\<rparr>), (19, \<lparr>lex_state = 10,
       external_lex_state = 1\<rparr>),
     (20, \<lparr>lex_state = 10, external_lex_state = 1\<rparr>), (21, \<lparr>lex_state = 10,
       external_lex_state = 1\<rparr>),
     (22, \<lparr>lex_state = 10, external_lex_state = 1\<rparr>), (23, \<lparr>lex_state = 10,
       external_lex_state = 1\<rparr>),
     (24, \<lparr>lex_state = 10, external_lex_state = 1\<rparr>), (25, \<lparr>lex_state = 10,
       external_lex_state = 1\<rparr>),
     (26, \<lparr>lex_state = 10, external_lex_state = 1\<rparr>), (27, \<lparr>lex_state = 10,
       external_lex_state = 1\<rparr>),
     (28, \<lparr>lex_state = 10, external_lex_state = 1\<rparr>), (29, \<lparr>lex_state = 10,
       external_lex_state = 1\<rparr>),
     (30, \<lparr>lex_state = 11, external_lex_state = 1\<rparr>), (31, \<lparr>lex_state = 71,
       external_lex_state = 1\<rparr>),
     (32, \<lparr>lex_state = 71, external_lex_state = 1\<rparr>), (33, \<lparr>lex_state = 71,
       external_lex_state = 1\<rparr>),
     (34, \<lparr>lex_state = 71, external_lex_state = 1\<rparr>), (35, \<lparr>lex_state = 71,
       external_lex_state = 1\<rparr>),
     (36, \<lparr>lex_state = 71, external_lex_state = 1\<rparr>), (37, \<lparr>lex_state = 71,
       external_lex_state = 1\<rparr>),
     (38, \<lparr>lex_state = 71, external_lex_state = 1\<rparr>), (39, \<lparr>lex_state = 71,
       external_lex_state = 1\<rparr>),
     (40, \<lparr>lex_state = 71, external_lex_state = 1\<rparr>), (41, \<lparr>lex_state = 71,
       external_lex_state = 1\<rparr>),
     (42, \<lparr>lex_state = 71, external_lex_state = 1\<rparr>), (43, \<lparr>lex_state = 71,
       external_lex_state = 1\<rparr>),
     (44, \<lparr>lex_state = 11, external_lex_state = 1\<rparr>), (45, \<lparr>lex_state = 11,
       external_lex_state = 1\<rparr>),
     (46, \<lparr>lex_state = 11, external_lex_state = 1\<rparr>), (47, \<lparr>lex_state = 11,
       external_lex_state = 1\<rparr>),
     (48, \<lparr>lex_state = 11, external_lex_state = 1\<rparr>), (49, \<lparr>lex_state = 11,
       external_lex_state = 1\<rparr>),
     (50, \<lparr>lex_state = 11, external_lex_state = 1\<rparr>), (51, \<lparr>lex_state = 11,
       external_lex_state = 1\<rparr>),
     (52, \<lparr>lex_state = 11, external_lex_state = 1\<rparr>), (53, \<lparr>lex_state = 11,
       external_lex_state = 1\<rparr>),
     (54, \<lparr>lex_state = 11, external_lex_state = 1\<rparr>), (55, \<lparr>lex_state = 11,
       external_lex_state = 1\<rparr>),
     (56, \<lparr>lex_state = 11, external_lex_state = 1\<rparr>), (57, \<lparr>lex_state = 71,
       external_lex_state = 1\<rparr>),
     (58, \<lparr>lex_state = 0, external_lex_state = 0\<rparr>), (59, \<lparr>lex_state = 0,
       external_lex_state = 0\<rparr>),
     (60, \<lparr>lex_state = 0, external_lex_state = 0\<rparr>), (61, \<lparr>lex_state = 0,
       external_lex_state = 0\<rparr>),
     (62, \<lparr>lex_state = 0, external_lex_state = 0\<rparr>), (63, \<lparr>lex_state = 0,
       external_lex_state = 0\<rparr>),
     (64, \<lparr>lex_state = 0, external_lex_state = 0\<rparr>), (65, \<lparr>lex_state = 0,
       external_lex_state = 0\<rparr>),
     (66, \<lparr>lex_state = 0, external_lex_state = 0\<rparr>), (67, \<lparr>lex_state = 0,
       external_lex_state = 0\<rparr>),
     (68, \<lparr>lex_state = 93, external_lex_state = 0\<rparr>), (69, \<lparr>lex_state = 93,
       external_lex_state = 0\<rparr>),
     (70, \<lparr>lex_state = 93, external_lex_state = 0\<rparr>), (71, \<lparr>lex_state = 93,
       external_lex_state = 0\<rparr>),
     (72, \<lparr>lex_state = 93, external_lex_state = 0\<rparr>), (73, \<lparr>lex_state = 93,
       external_lex_state = 0\<rparr>),
     (74, \<lparr>lex_state = 93, external_lex_state = 0\<rparr>), (75, \<lparr>lex_state = 93,
       external_lex_state = 0\<rparr>),
     (76, \<lparr>lex_state = 93, external_lex_state = 0\<rparr>), (77, \<lparr>lex_state = 93,
       external_lex_state = 0\<rparr>),
     (78, \<lparr>lex_state = 93, external_lex_state = 0\<rparr>), (79, \<lparr>lex_state = 93,
       external_lex_state = 0\<rparr>),
     (80, \<lparr>lex_state = 93, external_lex_state = 0\<rparr>), (81, \<lparr>lex_state = 93,
       external_lex_state = 0\<rparr>),
     (82, \<lparr>lex_state = 93, external_lex_state = 0\<rparr>), (83, \<lparr>lex_state = 93,
       external_lex_state = 0\<rparr>),
     (84, \<lparr>lex_state = 93, external_lex_state = 0\<rparr>), (85, \<lparr>lex_state = 93,
       external_lex_state = 0\<rparr>),
     (86, \<lparr>lex_state = 93, external_lex_state = 0\<rparr>), (87, \<lparr>lex_state = 9,
       external_lex_state = 0\<rparr>),
     (88, \<lparr>lex_state = 9, external_lex_state = 0\<rparr>), (89, \<lparr>lex_state = 0,
       external_lex_state = 0\<rparr>),
     (90, \<lparr>lex_state = 9, external_lex_state = 0\<rparr>), (91, \<lparr>lex_state = 0,
       external_lex_state = 0\<rparr>),
     (92, \<lparr>lex_state = 98, external_lex_state = 0\<rparr>), (93, \<lparr>lex_state = 0,
       external_lex_state = 0\<rparr>),
     (94, \<lparr>lex_state = 0, external_lex_state = 0\<rparr>), (95, \<lparr>lex_state = 0,
       external_lex_state = 0\<rparr>),
     (96, \<lparr>lex_state = 9, external_lex_state = 0\<rparr>), (97, \<lparr>lex_state = 9,
       external_lex_state = 0\<rparr>),
     (98, \<lparr>lex_state = 0, external_lex_state = 0\<rparr>), (99, \<lparr>lex_state = 9,
       external_lex_state = 0\<rparr>),
     (100, \<lparr>lex_state = 0, external_lex_state = 0\<rparr>), (101, \<lparr>lex_state = 0,
       external_lex_state = 0\<rparr>),
     (102, \<lparr>lex_state = 0, external_lex_state = 0\<rparr>), (103, \<lparr>lex_state = 9,
       external_lex_state = 0\<rparr>),
     (104, \<lparr>lex_state = 0, external_lex_state = 0\<rparr>), (105, \<lparr>lex_state = 9,
       external_lex_state = 0\<rparr>),
     (106, \<lparr>lex_state = 98, external_lex_state = 0\<rparr>), (107, \<lparr>lex_state = 0,
       external_lex_state = 0\<rparr>),
     (108, \<lparr>lex_state = 9, external_lex_state = 0\<rparr>), (109, \<lparr>lex_state = 0,
       external_lex_state = 0\<rparr>),
     (110, \<lparr>lex_state = 9, external_lex_state = 0\<rparr>), (111, \<lparr>lex_state = 98,
       external_lex_state = 0\<rparr>),
     (112, \<lparr>lex_state = 0, external_lex_state = 0\<rparr>), (113, \<lparr>lex_state = 9,
       external_lex_state = 0\<rparr>),
     (114, \<lparr>lex_state = 0, external_lex_state = 0\<rparr>), (115, \<lparr>lex_state = 0,
       external_lex_state = 0\<rparr>),
     (116, \<lparr>lex_state = 0, external_lex_state = 0\<rparr>), (117, \<lparr>lex_state = 0,
       external_lex_state = 0\<rparr>),
     (118, \<lparr>lex_state = 0, external_lex_state = 0\<rparr>), (119, \<lparr>lex_state = 0,
       external_lex_state = 0\<rparr>),
     (120, \<lparr>lex_state = 9, external_lex_state = 0\<rparr>)]"

section \<open>The parse table\<close>

text \<open>One definition per row of the large states, as (symbol, value) pairs.\<close>

definition pp_parse_row_0 :: "(TSSymbol \<times> nat) list" where
  "pp_parse_row_0 =
    [(ts_builtin_sym_end, 1), (pp_sym_identifier, 1),
     (pp_aux_sym_preproc_include_token1, 1), (pp_anon_sym_LT, 1),
     (pp_anon_sym_GT, 1), (pp_aux_sym_define_token1, 1),
     (pp_aux_sym_preproc_if_token1, 1), (pp_aux_sym_preproc_if_token2, 1),
     (pp_aux_sym_preproc_elif_token1, 1), (pp_aux_sym_preproc_else_token1, 1),
     (pp_aux_sym_undef_token1, 1), (pp_aux_sym_preproc_nothing_token1, 1),
     (pp_aux_sym_string_literal_token1, 1), (pp_aux_sym_char_literal_token1, 1),
     (pp_sym_integer_literal, 1), (pp_sym_comment, 1),
     (pp_sym_raw_string_literal, 1)]"

definition pp_parse_row_1 :: "(TSSymbol \<times> nat) list" where
  "pp_parse_row_1 =
    [(pp_sym_translation_unit, 115), (pp_sym__top_level_item, 12),
     (pp_sym_preproc_include, 12), (pp_sym_define, 12),
     (pp_sym_preproc_if, 12), (pp_sym_undef, 12),
     (pp_sym_preproc_nothing, 12), (pp_sym_string_literal, 12),
     (pp_sym_char_literal, 12), (pp_aux_sym_translation_unit_repeat1, 12),
     (ts_builtin_sym_end, 3), (pp_sym_nothing, 5),
     (pp_aux_sym_preproc_include_token1, 7), (pp_aux_sym_define_token1, 9),
     (pp_aux_sym_preproc_if_token1, 11), (pp_aux_sym_undef_token1, 13),
     (pp_aux_sym_preproc_nothing_token1, 15), (pp_aux_sym_string_literal_token1, 17),
     (pp_aux_sym_char_literal_token1, 19), (pp_sym_integer_literal, 21),
     (pp_sym_comment, 5), (pp_sym_raw_string_literal, 21)]"

definition pp_parse_row_2 :: "(TSSymbol \<times> nat) list" where
  "pp_parse_row_2 =
    [(pp_sym__top_level_item, 8), (pp_sym_preproc_include, 8),
     (pp_sym_define, 8), (pp_sym_preproc_if, 8),
     (pp_sym_preproc_elif, 60), (pp_sym_preproc_else, 109),
     (pp_sym_undef, 8), (pp_sym_preproc_nothing, 8),
     (pp_sym_string_literal, 8), (pp_sym_char_literal, 8),
     (pp_aux_sym_translation_unit_repeat1, 8), (pp_aux_sym_preproc_if_repeat1, 60),
     (pp_sym_nothing, 23), (pp_aux_sym_preproc_include_token1, 25),
     (pp_aux_sym_define_token1, 27), (pp_aux_sym_preproc_if_token1, 29),
     (pp_aux_sym_preproc_if_token2, 31), (pp_aux_sym_preproc_elif_token1, 33),
     (pp_aux_sym_preproc_else_token1, 35), (pp_aux_sym_undef_token1, 37),
     (pp_aux_sym_preproc_nothing_token1, 39), (pp_aux_sym_string_literal_token1, 41),
     (pp_aux_sym_char_literal_token1, 43), (pp_sym_integer_literal, 45),
     (pp_sym_comment, 23), (pp_sym_raw_string_literal, 45)]"

definition pp_parse_row_3 :: "(TSSymbol \<times> nat) list" where
  "pp_parse_row_3 =
    [(pp_sym__top_level_item, 5), (pp_sym_preproc_include, 5),
     (pp_sym_define, 5), (pp_sym_preproc_if, 5),
     (pp_sym_preproc_elif, 63), (pp_sym_preproc_else, 101),
     (pp_sym_undef, 5), (pp_sym_preproc_nothing, 5),
     (pp_sym_string_literal, 5), (pp_sym_char_literal, 5),
     (pp_aux_sym_translation_unit_repeat1, 5), (pp_aux_sym_preproc_if_repeat1, 63),
     (pp_sym_nothing, 47), (pp_aux_sym_preproc_include_token1, 25),
     (pp_aux_sym_define_token1, 27), (pp_aux_sym_preproc_if_token1, 29),
     (pp_aux_sym_preproc_if_token2, 49), (pp_aux_sym_preproc_elif_token1, 33),
     (pp_aux_sym_preproc_else_token1, 35), (pp_aux_sym_undef_token1, 37),
     (pp_aux_sym_preproc_nothing_token1, 39), (pp_aux_sym_string_literal_token1, 41),
     (pp_aux_sym_char_literal_token1, 43), (pp_sym_integer_literal, 51),
     (pp_sym_comment, 47), (pp_sym_raw_string_literal, 51)]"

definition pp_parse_row_4 :: "(TSSymbol \<times> nat) list" where
  "pp_parse_row_4 =
    [(pp_sym__top_level_item, 2), (pp_sym_preproc_include, 2),
     (pp_sym_define, 2), (pp_sym_preproc_if, 2),
     (pp_sym_preproc_elif, 59), (pp_sym_preproc_else, 107),
     (pp_sym_undef, 2), (pp_sym_preproc_nothing, 2),
     (pp_sym_string_literal, 2), (pp_sym_char_literal, 2),
     (pp_aux_sym_translation_unit_repeat1, 2), (pp_aux_sym_preproc_if_repeat1, 59),
     (pp_sym_nothing, 53), (pp_aux_sym_preproc_include_token1, 25),
     (pp_aux_sym_define_token1, 27), (pp_aux_sym_preproc_if_token1, 29),
     (pp_aux_sym_preproc_if_token2, 55), (pp_aux_sym_preproc_elif_token1, 33),
     (pp_aux_sym_preproc_else_token1, 35), (pp_aux_sym_undef_token1, 37),
     (pp_aux_sym_preproc_nothing_token1, 39), (pp_aux_sym_string_literal_token1, 41),
     (pp_aux_sym_char_literal_token1, 43), (pp_sym_integer_literal, 57),
     (pp_sym_comment, 53), (pp_sym_raw_string_literal, 57)]"

definition pp_parse_row_5 :: "(TSSymbol \<times> nat) list" where
  "pp_parse_row_5 =
    [(pp_sym__top_level_item, 8), (pp_sym_preproc_include, 8),
     (pp_sym_define, 8), (pp_sym_preproc_if, 8),
     (pp_sym_preproc_elif, 61), (pp_sym_preproc_else, 114),
     (pp_sym_undef, 8), (pp_sym_preproc_nothing, 8),
     (pp_sym_string_literal, 8), (pp_sym_char_literal, 8),
     (pp_aux_sym_translation_unit_repeat1, 8), (pp_aux_sym_preproc_if_repeat1, 61),
     (pp_sym_nothing, 23), (pp_aux_sym_preproc_include_token1, 25),
     (pp_aux_sym_define_token1, 27), (pp_aux_sym_preproc_if_token1, 29),
     (pp_aux_sym_preproc_if_token2, 59), (pp_aux_sym_preproc_elif_token1, 33),
     (pp_aux_sym_preproc_else_token1, 35), (pp_aux_sym_undef_token1, 37),
     (pp_aux_sym_preproc_nothing_token1, 39), (pp_aux_sym_string_literal_token1, 41),
     (pp_aux_sym_char_literal_token1, 43), (pp_sym_integer_literal, 45),
     (pp_sym_comment, 23), (pp_sym_raw_string_literal, 45)]"

definition pp_parse_row_6 :: "(TSSymbol \<times> nat) list" where
  "pp_parse_row_6 =
    [(pp_sym__top_level_item, 7), (pp_sym_preproc_include, 7),
     (pp_sym_define, 7), (pp_sym_preproc_if, 7),
     (pp_sym_preproc_elif, 62), (pp_sym_preproc_else, 94),
     (pp_sym_undef, 7), (pp_sym_preproc_nothing, 7),
     (pp_sym_string_literal, 7), (pp_sym_char_literal, 7),
     (pp_aux_sym_translation_unit_repeat1, 7), (pp_aux_sym_preproc_if_repeat1, 62),
     (pp_sym_nothing, 61), (pp_aux_sym_preproc_include_token1, 25),
     (pp_aux_sym_define_token1, 27), (pp_aux_sym_preproc_if_token1, 29),
     (pp_aux_sym_preproc_if_token2, 63), (pp_aux_sym_preproc_elif_token1, 33),
     (pp_aux_sym_preproc_else_token1, 35), (pp_aux_sym_undef_token1, 37),
     (pp_aux_sym_preproc_nothing_token1, 39), (pp_aux_sym_string_literal_token1, 41),
     (pp_aux_sym_char_literal_token1, 43), (pp_sym_integer_literal, 65),
     (pp_sym_comment, 61), (pp_sym_raw_string_literal, 65)]"

definition pp_parse_row_7 :: "(TSSymbol \<times> nat) list" where
  "pp_parse_row_7 =
    [(pp_sym__top_level_item, 8), (pp_sym_preproc_include, 8),
     (pp_sym_define, 8), (pp_sym_preproc_if, 8),
     (pp_sym_preproc_elif, 58), (pp_sym_preproc_else, 100),
     (pp_sym_undef, 8), (pp_sym_preproc_nothing, 8),
     (pp_sym_string_literal, 8), (pp_sym_char_literal, 8),
     (pp_aux_sym_translation_unit_repeat1, 8), (pp_aux_sym_preproc_if_repeat1, 58),
     (pp_sym_nothing, 23), (pp_aux_sym_preproc_include_token1, 25),
     (pp_aux_sym_define_token1, 27), (pp_aux_sym_preproc_if_token1, 29),
     (pp_aux_sym_preproc_if_token2, 67), (pp_aux_sym_preproc_elif_token1, 33),
     (pp_aux_sym_preproc_else_token1, 35), (pp_aux_sym_undef_token1, 37),
     (pp_aux_sym_preproc_nothing_token1, 39), (pp_aux_sym_string_literal_token1, 41),
     (pp_aux_sym_char_literal_token1, 43), (pp_sym_integer_literal, 45),
     (pp_sym_comment, 23), (pp_sym_raw_string_literal, 45)]"

definition pp_parse_row_8 :: "(TSSymbol \<times> nat) list" where
  "pp_parse_row_8 =
    [(pp_sym__top_level_item, 8), (pp_sym_preproc_include, 8),
     (pp_sym_define, 8), (pp_sym_preproc_if, 8),
     (pp_sym_undef, 8), (pp_sym_preproc_nothing, 8),
     (pp_sym_string_literal, 8), (pp_sym_char_literal, 8),
     (pp_aux_sym_translation_unit_repeat1, 8), (pp_sym_nothing, 69),
     (pp_aux_sym_preproc_include_token1, 72), (pp_aux_sym_define_token1, 75),
     (pp_aux_sym_preproc_if_token1, 78), (pp_aux_sym_preproc_if_token2, 81),
     (pp_aux_sym_preproc_elif_token1, 81), (pp_aux_sym_preproc_else_token1, 81),
     (pp_aux_sym_undef_token1, 83), (pp_aux_sym_preproc_nothing_token1, 86),
     (pp_aux_sym_string_literal_token1, 89), (pp_aux_sym_char_literal_token1, 92),
     (pp_sym_integer_literal, 95), (pp_sym_comment, 69),
     (pp_sym_raw_string_literal, 95)]"

definition pp_parse_row_9 :: "(TSSymbol \<times> nat) list" where
  "pp_parse_row_9 =
    [(pp_sym__top_level_item, 8), (pp_sym_preproc_include, 8),
     (pp_sym_define, 8), (pp_sym_preproc_if, 8),
     (pp_sym_undef, 8), (pp_sym_preproc_nothing, 8),
     (pp_sym_string_literal, 8), (pp_sym_char_literal, 8),
     (pp_aux_sym_translation_unit_repeat1, 8), (pp_sym_nothing, 23),
     (pp_aux_sym_preproc_include_token1, 25), (pp_aux_sym_define_token1, 27),
     (pp_aux_sym_preproc_if_token1, 29), (pp_aux_sym_preproc_if_token2, 98),
     (pp_aux_sym_preproc_elif_token1, 98), (pp_aux_sym_preproc_else_token1, 98),
     (pp_aux_sym_undef_token1, 37), (pp_aux_sym_preproc_nothing_token1, 39),
     (pp_aux_sym_string_literal_token1, 41), (pp_aux_sym_char_literal_token1, 43),
     (pp_sym_integer_literal, 45), (pp_sym_comment, 23),
     (pp_sym_raw_string_literal, 45)]"

definition pp_parse_row_10 :: "(TSSymbol \<times> nat) list" where
  "pp_parse_row_10 =
    [(pp_sym__top_level_item, 9), (pp_sym_preproc_include, 9),
     (pp_sym_define, 9), (pp_sym_preproc_if, 9),
     (pp_sym_undef, 9), (pp_sym_preproc_nothing, 9),
     (pp_sym_string_literal, 9), (pp_sym_char_literal, 9),
     (pp_aux_sym_translation_unit_repeat1, 9), (pp_sym_nothing, 100),
     (pp_aux_sym_preproc_include_token1, 25), (pp_aux_sym_define_token1, 27),
     (pp_aux_sym_preproc_if_token1, 29), (pp_aux_sym_preproc_if_token2, 102),
     (pp_aux_sym_preproc_elif_token1, 102), (pp_aux_sym_preproc_else_token1, 102),
     (pp_aux_sym_undef_token1, 37), (pp_aux_sym_preproc_nothing_token1, 39),
     (pp_aux_sym_string_literal_token1, 41), (pp_aux_sym_char_literal_token1, 43),
     (pp_sym_integer_literal, 104), (pp_sym_comment, 100),
     (pp_sym_raw_string_literal, 104)]"

definition pp_parse_row_11 :: "(TSSymbol \<times> nat) list" where
  "pp_parse_row_11 =
    [(pp_sym__top_level_item, 13), (pp_sym_preproc_include, 13),
     (pp_sym_define, 13), (pp_sym_preproc_if, 13),
     (pp_sym_undef, 13), (pp_sym_preproc_nothing, 13),
     (pp_sym_string_literal, 13), (pp_sym_char_literal, 13),
     (pp_aux_sym_translation_unit_repeat1, 13), (pp_sym_nothing, 106),
     (pp_aux_sym_preproc_include_token1, 108), (pp_aux_sym_define_token1, 110),
     (pp_aux_sym_preproc_if_token1, 112), (pp_aux_sym_preproc_if_token2, 114),
     (pp_aux_sym_undef_token1, 116), (pp_aux_sym_preproc_nothing_token1, 118),
     (pp_aux_sym_string_literal_token1, 120), (pp_aux_sym_char_literal_token1, 122),
     (pp_sym_integer_literal, 124), (pp_sym_comment, 106),
     (pp_sym_raw_string_literal, 124)]"

definition pp_parse_row_12 :: "(TSSymbol \<times> nat) list" where
  "pp_parse_row_12 =
    [(pp_sym__top_level_item, 14), (pp_sym_preproc_include, 14),
     (pp_sym_define, 14), (pp_sym_preproc_if, 14),
     (pp_sym_undef, 14), (pp_sym_preproc_nothing, 14),
     (pp_sym_string_literal, 14), (pp_sym_char_literal, 14),
     (pp_aux_sym_translation_unit_repeat1, 14), (ts_builtin_sym_end, 126),
     (pp_sym_nothing, 128), (pp_aux_sym_preproc_include_token1, 7),
     (pp_aux_sym_define_token1, 9), (pp_aux_sym_preproc_if_token1, 11),
     (pp_aux_sym_undef_token1, 13), (pp_aux_sym_preproc_nothing_token1, 15),
     (pp_aux_sym_string_literal_token1, 17), (pp_aux_sym_char_literal_token1, 19),
     (pp_sym_integer_literal, 130), (pp_sym_comment, 128),
     (pp_sym_raw_string_literal, 130)]"

definition pp_parse_row_13 :: "(TSSymbol \<times> nat) list" where
  "pp_parse_row_13 =
    [(pp_sym__top_level_item, 15), (pp_sym_preproc_include, 15),
     (pp_sym_define, 15), (pp_sym_preproc_if, 15),
     (pp_sym_undef, 15), (pp_sym_preproc_nothing, 15),
     (pp_sym_string_literal, 15), (pp_sym_char_literal, 15),
     (pp_aux_sym_translation_unit_repeat1, 15), (pp_sym_nothing, 132),
     (pp_aux_sym_preproc_include_token1, 108), (pp_aux_sym_define_token1, 110),
     (pp_aux_sym_preproc_if_token1, 112), (pp_aux_sym_preproc_if_token2, 134),
     (pp_aux_sym_undef_token1, 116), (pp_aux_sym_preproc_nothing_token1, 118),
     (pp_aux_sym_string_literal_token1, 120), (pp_aux_sym_char_literal_token1, 122),
     (pp_sym_integer_literal, 136), (pp_sym_comment, 132),
     (pp_sym_raw_string_literal, 136)]"

definition pp_parse_row_14 :: "(TSSymbol \<times> nat) list" where
  "pp_parse_row_14 =
    [(pp_sym__top_level_item, 14), (pp_sym_preproc_include, 14),
     (pp_sym_define, 14), (pp_sym_preproc_if, 14),
     (pp_sym_undef, 14), (pp_sym_preproc_nothing, 14),
     (pp_sym_string_literal, 14), (pp_sym_char_literal, 14),
     (pp_aux_sym_translation_unit_repeat1, 14), (ts_builtin_sym_end, 138),
     (pp_sym_nothing, 140), (pp_aux_sym_preproc_include_token1, 143),
     (pp_aux_sym_define_token1, 146), (pp_aux_sym_preproc_if_token1, 149),
     (pp_aux_sym_undef_token1, 152), (pp_aux_sym_preproc_nothing_token1, 155),
     (pp_aux_sym_string_literal_token1, 158), (pp_aux_sym_char_literal_token1, 161),
     (pp_sym_integer_literal, 164), (pp_sym_comment, 140),
     (pp_sym_raw_string_literal, 164)]"

definition pp_parse_row_15 :: "(TSSymbol \<times> nat) list" where
  "pp_parse_row_15 =
    [(pp_sym__top_level_item, 15), (pp_sym_preproc_include, 15),
     (pp_sym_define, 15), (pp_sym_preproc_if, 15),
     (pp_sym_undef, 15), (pp_sym_preproc_nothing, 15),
     (pp_sym_string_literal, 15), (pp_sym_char_literal, 15),
     (pp_aux_sym_translation_unit_repeat1, 15), (pp_sym_nothing, 167),
     (pp_aux_sym_preproc_include_token1, 170), (pp_aux_sym_define_token1, 173),
     (pp_aux_sym_preproc_if_token1, 176), (pp_aux_sym_preproc_if_token2, 81),
     (pp_aux_sym_undef_token1, 179), (pp_aux_sym_preproc_nothing_token1, 182),
     (pp_aux_sym_string_literal_token1, 185), (pp_aux_sym_char_literal_token1, 188),
     (pp_sym_integer_literal, 191), (pp_sym_comment, 167),
     (pp_sym_raw_string_literal, 191)]"

definition pp_ts_parse_table :: "(nat \<times> (TSSymbol \<times> nat) list) list" where
  "pp_ts_parse_table =
    [(0, pp_parse_row_0), (1, pp_parse_row_1), (2, pp_parse_row_2), (3, pp_parse_row_3),
     (4, pp_parse_row_4), (5, pp_parse_row_5), (6, pp_parse_row_6), (7, pp_parse_row_7),
     (8, pp_parse_row_8), (9, pp_parse_row_9), (10, pp_parse_row_10), (11, pp_parse_row_11),
     (12, pp_parse_row_12), (13, pp_parse_row_13), (14, pp_parse_row_14), (15, pp_parse_row_15)]"

section \<open>The small parse table\<close>

text \<open>One definition per designated run.\<close>

definition pp_small_run_0 :: "nat list" where
  "pp_small_run_0 =
    [2, 196, 2, pp_sym_raw_string_literal, pp_sym_integer_literal, 194, 12, pp_sym_nothing,
      pp_aux_sym_preproc_include_token1, pp_aux_sym_define_token1, pp_aux_sym_preproc_if_token1,
      pp_aux_sym_preproc_if_token2, pp_aux_sym_preproc_elif_token1,
      pp_aux_sym_preproc_else_token1, pp_aux_sym_undef_token1, pp_aux_sym_preproc_nothing_token1,
      pp_aux_sym_string_literal_token1, pp_aux_sym_char_literal_token1, pp_sym_comment]"

definition pp_small_run_19 :: "nat list" where
  "pp_small_run_19 =
    [2, 200, 2, pp_sym_raw_string_literal, pp_sym_integer_literal, 198, 12, pp_sym_nothing,
      pp_aux_sym_preproc_include_token1, pp_aux_sym_define_token1, pp_aux_sym_preproc_if_token1,
      pp_aux_sym_preproc_if_token2, pp_aux_sym_preproc_elif_token1,
      pp_aux_sym_preproc_else_token1, pp_aux_sym_undef_token1, pp_aux_sym_preproc_nothing_token1,
      pp_aux_sym_string_literal_token1, pp_aux_sym_char_literal_token1, pp_sym_comment]"

definition pp_small_run_38 :: "nat list" where
  "pp_small_run_38 =
    [2, 204, 2, pp_sym_raw_string_literal, pp_sym_integer_literal, 202, 12, pp_sym_nothing,
      pp_aux_sym_preproc_include_token1, pp_aux_sym_define_token1, pp_aux_sym_preproc_if_token1,
      pp_aux_sym_preproc_if_token2, pp_aux_sym_preproc_elif_token1,
      pp_aux_sym_preproc_else_token1, pp_aux_sym_undef_token1, pp_aux_sym_preproc_nothing_token1,
      pp_aux_sym_string_literal_token1, pp_aux_sym_char_literal_token1, pp_sym_comment]"

definition pp_small_run_57 :: "nat list" where
  "pp_small_run_57 =
    [2, 208, 2, pp_sym_raw_string_literal, pp_sym_integer_literal, 206, 12, pp_sym_nothing,
      pp_aux_sym_preproc_include_token1, pp_aux_sym_define_token1, pp_aux_sym_preproc_if_token1,
      pp_aux_sym_preproc_if_token2, pp_aux_sym_preproc_elif_token1,
      pp_aux_sym_preproc_else_token1, pp_aux_sym_undef_token1, pp_aux_sym_preproc_nothing_token1,
      pp_aux_sym_string_literal_token1, pp_aux_sym_char_literal_token1, pp_sym_comment]"

definition pp_small_run_76 :: "nat list" where
  "pp_small_run_76 =
    [2, 212, 2, pp_sym_raw_string_literal, pp_sym_integer_literal, 210, 12, pp_sym_nothing,
      pp_aux_sym_preproc_include_token1, pp_aux_sym_define_token1, pp_aux_sym_preproc_if_token1,
      pp_aux_sym_preproc_if_token2, pp_aux_sym_preproc_elif_token1,
      pp_aux_sym_preproc_else_token1, pp_aux_sym_undef_token1, pp_aux_sym_preproc_nothing_token1,
      pp_aux_sym_string_literal_token1, pp_aux_sym_char_literal_token1, pp_sym_comment]"

definition pp_small_run_95 :: "nat list" where
  "pp_small_run_95 =
    [2, 216, 2, pp_sym_raw_string_literal, pp_sym_integer_literal, 214, 12, pp_sym_nothing,
      pp_aux_sym_preproc_include_token1, pp_aux_sym_define_token1, pp_aux_sym_preproc_if_token1,
      pp_aux_sym_preproc_if_token2, pp_aux_sym_preproc_elif_token1,
      pp_aux_sym_preproc_else_token1, pp_aux_sym_undef_token1, pp_aux_sym_preproc_nothing_token1,
      pp_aux_sym_string_literal_token1, pp_aux_sym_char_literal_token1, pp_sym_comment]"

definition pp_small_run_114 :: "nat list" where
  "pp_small_run_114 =
    [2, 220, 2, pp_sym_raw_string_literal, pp_sym_integer_literal, 218, 12, pp_sym_nothing,
      pp_aux_sym_preproc_include_token1, pp_aux_sym_define_token1, pp_aux_sym_preproc_if_token1,
      pp_aux_sym_preproc_if_token2, pp_aux_sym_preproc_elif_token1,
      pp_aux_sym_preproc_else_token1, pp_aux_sym_undef_token1, pp_aux_sym_preproc_nothing_token1,
      pp_aux_sym_string_literal_token1, pp_aux_sym_char_literal_token1, pp_sym_comment]"

definition pp_small_run_133 :: "nat list" where
  "pp_small_run_133 =
    [2, 224, 2, pp_sym_raw_string_literal, pp_sym_integer_literal, 222, 12, pp_sym_nothing,
      pp_aux_sym_preproc_include_token1, pp_aux_sym_define_token1, pp_aux_sym_preproc_if_token1,
      pp_aux_sym_preproc_if_token2, pp_aux_sym_preproc_elif_token1,
      pp_aux_sym_preproc_else_token1, pp_aux_sym_undef_token1, pp_aux_sym_preproc_nothing_token1,
      pp_aux_sym_string_literal_token1, pp_aux_sym_char_literal_token1, pp_sym_comment]"

definition pp_small_run_152 :: "nat list" where
  "pp_small_run_152 =
    [2, 228, 2, pp_sym_raw_string_literal, pp_sym_integer_literal, 226, 12, pp_sym_nothing,
      pp_aux_sym_preproc_include_token1, pp_aux_sym_define_token1, pp_aux_sym_preproc_if_token1,
      pp_aux_sym_preproc_if_token2, pp_aux_sym_preproc_elif_token1,
      pp_aux_sym_preproc_else_token1, pp_aux_sym_undef_token1, pp_aux_sym_preproc_nothing_token1,
      pp_aux_sym_string_literal_token1, pp_aux_sym_char_literal_token1, pp_sym_comment]"

definition pp_small_run_171 :: "nat list" where
  "pp_small_run_171 =
    [2, 232, 2, pp_sym_raw_string_literal, pp_sym_integer_literal, 230, 12, pp_sym_nothing,
      pp_aux_sym_preproc_include_token1, pp_aux_sym_define_token1, pp_aux_sym_preproc_if_token1,
      pp_aux_sym_preproc_if_token2, pp_aux_sym_preproc_elif_token1,
      pp_aux_sym_preproc_else_token1, pp_aux_sym_undef_token1, pp_aux_sym_preproc_nothing_token1,
      pp_aux_sym_string_literal_token1, pp_aux_sym_char_literal_token1, pp_sym_comment]"

definition pp_small_run_190 :: "nat list" where
  "pp_small_run_190 =
    [2, 236, 2, pp_sym_raw_string_literal, pp_sym_integer_literal, 234, 12, pp_sym_nothing,
      pp_aux_sym_preproc_include_token1, pp_aux_sym_define_token1, pp_aux_sym_preproc_if_token1,
      pp_aux_sym_preproc_if_token2, pp_aux_sym_preproc_elif_token1,
      pp_aux_sym_preproc_else_token1, pp_aux_sym_undef_token1, pp_aux_sym_preproc_nothing_token1,
      pp_aux_sym_string_literal_token1, pp_aux_sym_char_literal_token1, pp_sym_comment]"

definition pp_small_run_209 :: "nat list" where
  "pp_small_run_209 =
    [2, 240, 2, pp_sym_raw_string_literal, pp_sym_integer_literal, 238, 12, pp_sym_nothing,
      pp_aux_sym_preproc_include_token1, pp_aux_sym_define_token1, pp_aux_sym_preproc_if_token1,
      pp_aux_sym_preproc_if_token2, pp_aux_sym_preproc_elif_token1,
      pp_aux_sym_preproc_else_token1, pp_aux_sym_undef_token1, pp_aux_sym_preproc_nothing_token1,
      pp_aux_sym_string_literal_token1, pp_aux_sym_char_literal_token1, pp_sym_comment]"

definition pp_small_run_228 :: "nat list" where
  "pp_small_run_228 =
    [2, 244, 2, pp_sym_raw_string_literal, pp_sym_integer_literal, 242, 12, pp_sym_nothing,
      pp_aux_sym_preproc_include_token1, pp_aux_sym_define_token1, pp_aux_sym_preproc_if_token1,
      pp_aux_sym_preproc_if_token2, pp_aux_sym_preproc_elif_token1,
      pp_aux_sym_preproc_else_token1, pp_aux_sym_undef_token1, pp_aux_sym_preproc_nothing_token1,
      pp_aux_sym_string_literal_token1, pp_aux_sym_char_literal_token1, pp_sym_comment]"

definition pp_small_run_247 :: "nat list" where
  "pp_small_run_247 =
    [2, 248, 2, pp_sym_raw_string_literal, pp_sym_integer_literal, 246, 12, pp_sym_nothing,
      pp_aux_sym_preproc_include_token1, pp_aux_sym_define_token1, pp_aux_sym_preproc_if_token1,
      pp_aux_sym_preproc_if_token2, pp_aux_sym_preproc_elif_token1,
      pp_aux_sym_preproc_else_token1, pp_aux_sym_undef_token1, pp_aux_sym_preproc_nothing_token1,
      pp_aux_sym_string_literal_token1, pp_aux_sym_char_literal_token1, pp_sym_comment]"

definition pp_small_run_266 :: "nat list" where
  "pp_small_run_266 =
    [2, 196, 2, pp_sym_raw_string_literal, pp_sym_integer_literal, 194, 10, pp_sym_nothing,
      pp_aux_sym_preproc_include_token1, pp_aux_sym_define_token1, pp_aux_sym_preproc_if_token1,
      pp_aux_sym_preproc_if_token2, pp_aux_sym_undef_token1, pp_aux_sym_preproc_nothing_token1,
      pp_aux_sym_string_literal_token1, pp_aux_sym_char_literal_token1, pp_sym_comment]"

definition pp_small_run_283 :: "nat list" where
  "pp_small_run_283 =
    [2, 200, 3, pp_sym_raw_string_literal, ts_builtin_sym_end, pp_sym_integer_literal, 198, 9,
      pp_sym_nothing, pp_aux_sym_preproc_include_token1, pp_aux_sym_define_token1,
      pp_aux_sym_preproc_if_token1, pp_aux_sym_undef_token1, pp_aux_sym_preproc_nothing_token1,
      pp_aux_sym_string_literal_token1, pp_aux_sym_char_literal_token1, pp_sym_comment]"

definition pp_small_run_300 :: "nat list" where
  "pp_small_run_300 =
    [2, 220, 3, pp_sym_raw_string_literal, ts_builtin_sym_end, pp_sym_integer_literal, 218, 9,
      pp_sym_nothing, pp_aux_sym_preproc_include_token1, pp_aux_sym_define_token1,
      pp_aux_sym_preproc_if_token1, pp_aux_sym_undef_token1, pp_aux_sym_preproc_nothing_token1,
      pp_aux_sym_string_literal_token1, pp_aux_sym_char_literal_token1, pp_sym_comment]"

definition pp_small_run_317 :: "nat list" where
  "pp_small_run_317 =
    [2, 204, 3, pp_sym_raw_string_literal, ts_builtin_sym_end, pp_sym_integer_literal, 202, 9,
      pp_sym_nothing, pp_aux_sym_preproc_include_token1, pp_aux_sym_define_token1,
      pp_aux_sym_preproc_if_token1, pp_aux_sym_undef_token1, pp_aux_sym_preproc_nothing_token1,
      pp_aux_sym_string_literal_token1, pp_aux_sym_char_literal_token1, pp_sym_comment]"

definition pp_small_run_334 :: "nat list" where
  "pp_small_run_334 =
    [2, 208, 3, pp_sym_raw_string_literal, ts_builtin_sym_end, pp_sym_integer_literal, 206, 9,
      pp_sym_nothing, pp_aux_sym_preproc_include_token1, pp_aux_sym_define_token1,
      pp_aux_sym_preproc_if_token1, pp_aux_sym_undef_token1, pp_aux_sym_preproc_nothing_token1,
      pp_aux_sym_string_literal_token1, pp_aux_sym_char_literal_token1, pp_sym_comment]"

definition pp_small_run_351 :: "nat list" where
  "pp_small_run_351 =
    [2, 224, 3, pp_sym_raw_string_literal, ts_builtin_sym_end, pp_sym_integer_literal, 222, 9,
      pp_sym_nothing, pp_aux_sym_preproc_include_token1, pp_aux_sym_define_token1,
      pp_aux_sym_preproc_if_token1, pp_aux_sym_undef_token1, pp_aux_sym_preproc_nothing_token1,
      pp_aux_sym_string_literal_token1, pp_aux_sym_char_literal_token1, pp_sym_comment]"

definition pp_small_run_368 :: "nat list" where
  "pp_small_run_368 =
    [2, 228, 3, pp_sym_raw_string_literal, ts_builtin_sym_end, pp_sym_integer_literal, 226, 9,
      pp_sym_nothing, pp_aux_sym_preproc_include_token1, pp_aux_sym_define_token1,
      pp_aux_sym_preproc_if_token1, pp_aux_sym_undef_token1, pp_aux_sym_preproc_nothing_token1,
      pp_aux_sym_string_literal_token1, pp_aux_sym_char_literal_token1, pp_sym_comment]"

definition pp_small_run_385 :: "nat list" where
  "pp_small_run_385 =
    [2, 232, 3, pp_sym_raw_string_literal, ts_builtin_sym_end, pp_sym_integer_literal, 230, 9,
      pp_sym_nothing, pp_aux_sym_preproc_include_token1, pp_aux_sym_define_token1,
      pp_aux_sym_preproc_if_token1, pp_aux_sym_undef_token1, pp_aux_sym_preproc_nothing_token1,
      pp_aux_sym_string_literal_token1, pp_aux_sym_char_literal_token1, pp_sym_comment]"

definition pp_small_run_402 :: "nat list" where
  "pp_small_run_402 =
    [2, 236, 3, pp_sym_raw_string_literal, ts_builtin_sym_end, pp_sym_integer_literal, 234, 9,
      pp_sym_nothing, pp_aux_sym_preproc_include_token1, pp_aux_sym_define_token1,
      pp_aux_sym_preproc_if_token1, pp_aux_sym_undef_token1, pp_aux_sym_preproc_nothing_token1,
      pp_aux_sym_string_literal_token1, pp_aux_sym_char_literal_token1, pp_sym_comment]"

definition pp_small_run_419 :: "nat list" where
  "pp_small_run_419 =
    [2, 240, 3, pp_sym_raw_string_literal, ts_builtin_sym_end, pp_sym_integer_literal, 238, 9,
      pp_sym_nothing, pp_aux_sym_preproc_include_token1, pp_aux_sym_define_token1,
      pp_aux_sym_preproc_if_token1, pp_aux_sym_undef_token1, pp_aux_sym_preproc_nothing_token1,
      pp_aux_sym_string_literal_token1, pp_aux_sym_char_literal_token1, pp_sym_comment]"

definition pp_small_run_436 :: "nat list" where
  "pp_small_run_436 =
    [2, 244, 3, pp_sym_raw_string_literal, ts_builtin_sym_end, pp_sym_integer_literal, 242, 9,
      pp_sym_nothing, pp_aux_sym_preproc_include_token1, pp_aux_sym_define_token1,
      pp_aux_sym_preproc_if_token1, pp_aux_sym_undef_token1, pp_aux_sym_preproc_nothing_token1,
      pp_aux_sym_string_literal_token1, pp_aux_sym_char_literal_token1, pp_sym_comment]"

definition pp_small_run_453 :: "nat list" where
  "pp_small_run_453 =
    [2, 248, 3, pp_sym_raw_string_literal, ts_builtin_sym_end, pp_sym_integer_literal, 246, 9,
      pp_sym_nothing, pp_aux_sym_preproc_include_token1, pp_aux_sym_define_token1,
      pp_aux_sym_preproc_if_token1, pp_aux_sym_undef_token1, pp_aux_sym_preproc_nothing_token1,
      pp_aux_sym_string_literal_token1, pp_aux_sym_char_literal_token1, pp_sym_comment]"

definition pp_small_run_470 :: "nat list" where
  "pp_small_run_470 =
    [2, 212, 3, pp_sym_raw_string_literal, ts_builtin_sym_end, pp_sym_integer_literal, 210, 9,
      pp_sym_nothing, pp_aux_sym_preproc_include_token1, pp_aux_sym_define_token1,
      pp_aux_sym_preproc_if_token1, pp_aux_sym_undef_token1, pp_aux_sym_preproc_nothing_token1,
      pp_aux_sym_string_literal_token1, pp_aux_sym_char_literal_token1, pp_sym_comment]"

definition pp_small_run_487 :: "nat list" where
  "pp_small_run_487 =
    [2, 196, 3, pp_sym_raw_string_literal, ts_builtin_sym_end, pp_sym_integer_literal, 194, 9,
      pp_sym_nothing, pp_aux_sym_preproc_include_token1, pp_aux_sym_define_token1,
      pp_aux_sym_preproc_if_token1, pp_aux_sym_undef_token1, pp_aux_sym_preproc_nothing_token1,
      pp_aux_sym_string_literal_token1, pp_aux_sym_char_literal_token1, pp_sym_comment]"

definition pp_small_run_504 :: "nat list" where
  "pp_small_run_504 =
    [2, 204, 2, pp_sym_raw_string_literal, pp_sym_integer_literal, 202, 10, pp_sym_nothing,
      pp_aux_sym_preproc_include_token1, pp_aux_sym_define_token1, pp_aux_sym_preproc_if_token1,
      pp_aux_sym_preproc_if_token2, pp_aux_sym_undef_token1, pp_aux_sym_preproc_nothing_token1,
      pp_aux_sym_string_literal_token1, pp_aux_sym_char_literal_token1, pp_sym_comment]"

definition pp_small_run_521 :: "nat list" where
  "pp_small_run_521 =
    [2, 208, 2, pp_sym_raw_string_literal, pp_sym_integer_literal, 206, 10, pp_sym_nothing,
      pp_aux_sym_preproc_include_token1, pp_aux_sym_define_token1, pp_aux_sym_preproc_if_token1,
      pp_aux_sym_preproc_if_token2, pp_aux_sym_undef_token1, pp_aux_sym_preproc_nothing_token1,
      pp_aux_sym_string_literal_token1, pp_aux_sym_char_literal_token1, pp_sym_comment]"

definition pp_small_run_538 :: "nat list" where
  "pp_small_run_538 =
    [2, 212, 2, pp_sym_raw_string_literal, pp_sym_integer_literal, 210, 10, pp_sym_nothing,
      pp_aux_sym_preproc_include_token1, pp_aux_sym_define_token1, pp_aux_sym_preproc_if_token1,
      pp_aux_sym_preproc_if_token2, pp_aux_sym_undef_token1, pp_aux_sym_preproc_nothing_token1,
      pp_aux_sym_string_literal_token1, pp_aux_sym_char_literal_token1, pp_sym_comment]"

definition pp_small_run_555 :: "nat list" where
  "pp_small_run_555 =
    [2, 216, 2, pp_sym_raw_string_literal, pp_sym_integer_literal, 214, 10, pp_sym_nothing,
      pp_aux_sym_preproc_include_token1, pp_aux_sym_define_token1, pp_aux_sym_preproc_if_token1,
      pp_aux_sym_preproc_if_token2, pp_aux_sym_undef_token1, pp_aux_sym_preproc_nothing_token1,
      pp_aux_sym_string_literal_token1, pp_aux_sym_char_literal_token1, pp_sym_comment]"

definition pp_small_run_572 :: "nat list" where
  "pp_small_run_572 =
    [2, 220, 2, pp_sym_raw_string_literal, pp_sym_integer_literal, 218, 10, pp_sym_nothing,
      pp_aux_sym_preproc_include_token1, pp_aux_sym_define_token1, pp_aux_sym_preproc_if_token1,
      pp_aux_sym_preproc_if_token2, pp_aux_sym_undef_token1, pp_aux_sym_preproc_nothing_token1,
      pp_aux_sym_string_literal_token1, pp_aux_sym_char_literal_token1, pp_sym_comment]"

definition pp_small_run_589 :: "nat list" where
  "pp_small_run_589 =
    [2, 224, 2, pp_sym_raw_string_literal, pp_sym_integer_literal, 222, 10, pp_sym_nothing,
      pp_aux_sym_preproc_include_token1, pp_aux_sym_define_token1, pp_aux_sym_preproc_if_token1,
      pp_aux_sym_preproc_if_token2, pp_aux_sym_undef_token1, pp_aux_sym_preproc_nothing_token1,
      pp_aux_sym_string_literal_token1, pp_aux_sym_char_literal_token1, pp_sym_comment]"

definition pp_small_run_606 :: "nat list" where
  "pp_small_run_606 =
    [2, 228, 2, pp_sym_raw_string_literal, pp_sym_integer_literal, 226, 10, pp_sym_nothing,
      pp_aux_sym_preproc_include_token1, pp_aux_sym_define_token1, pp_aux_sym_preproc_if_token1,
      pp_aux_sym_preproc_if_token2, pp_aux_sym_undef_token1, pp_aux_sym_preproc_nothing_token1,
      pp_aux_sym_string_literal_token1, pp_aux_sym_char_literal_token1, pp_sym_comment]"

definition pp_small_run_623 :: "nat list" where
  "pp_small_run_623 =
    [2, 232, 2, pp_sym_raw_string_literal, pp_sym_integer_literal, 230, 10, pp_sym_nothing,
      pp_aux_sym_preproc_include_token1, pp_aux_sym_define_token1, pp_aux_sym_preproc_if_token1,
      pp_aux_sym_preproc_if_token2, pp_aux_sym_undef_token1, pp_aux_sym_preproc_nothing_token1,
      pp_aux_sym_string_literal_token1, pp_aux_sym_char_literal_token1, pp_sym_comment]"

definition pp_small_run_640 :: "nat list" where
  "pp_small_run_640 =
    [2, 236, 2, pp_sym_raw_string_literal, pp_sym_integer_literal, 234, 10, pp_sym_nothing,
      pp_aux_sym_preproc_include_token1, pp_aux_sym_define_token1, pp_aux_sym_preproc_if_token1,
      pp_aux_sym_preproc_if_token2, pp_aux_sym_undef_token1, pp_aux_sym_preproc_nothing_token1,
      pp_aux_sym_string_literal_token1, pp_aux_sym_char_literal_token1, pp_sym_comment]"

definition pp_small_run_657 :: "nat list" where
  "pp_small_run_657 =
    [2, 240, 2, pp_sym_raw_string_literal, pp_sym_integer_literal, 238, 10, pp_sym_nothing,
      pp_aux_sym_preproc_include_token1, pp_aux_sym_define_token1, pp_aux_sym_preproc_if_token1,
      pp_aux_sym_preproc_if_token2, pp_aux_sym_undef_token1, pp_aux_sym_preproc_nothing_token1,
      pp_aux_sym_string_literal_token1, pp_aux_sym_char_literal_token1, pp_sym_comment]"

definition pp_small_run_674 :: "nat list" where
  "pp_small_run_674 =
    [2, 244, 2, pp_sym_raw_string_literal, pp_sym_integer_literal, 242, 10, pp_sym_nothing,
      pp_aux_sym_preproc_include_token1, pp_aux_sym_define_token1, pp_aux_sym_preproc_if_token1,
      pp_aux_sym_preproc_if_token2, pp_aux_sym_undef_token1, pp_aux_sym_preproc_nothing_token1,
      pp_aux_sym_string_literal_token1, pp_aux_sym_char_literal_token1, pp_sym_comment]"

definition pp_small_run_691 :: "nat list" where
  "pp_small_run_691 =
    [2, 248, 2, pp_sym_raw_string_literal, pp_sym_integer_literal, 246, 10, pp_sym_nothing,
      pp_aux_sym_preproc_include_token1, pp_aux_sym_define_token1, pp_aux_sym_preproc_if_token1,
      pp_aux_sym_preproc_if_token2, pp_aux_sym_undef_token1, pp_aux_sym_preproc_nothing_token1,
      pp_aux_sym_string_literal_token1, pp_aux_sym_char_literal_token1, pp_sym_comment]"

definition pp_small_run_708 :: "nat list" where
  "pp_small_run_708 =
    [2, 200, 2, pp_sym_raw_string_literal, pp_sym_integer_literal, 198, 10, pp_sym_nothing,
      pp_aux_sym_preproc_include_token1, pp_aux_sym_define_token1, pp_aux_sym_preproc_if_token1,
      pp_aux_sym_preproc_if_token2, pp_aux_sym_undef_token1, pp_aux_sym_preproc_nothing_token1,
      pp_aux_sym_string_literal_token1, pp_aux_sym_char_literal_token1, pp_sym_comment]"

definition pp_small_run_725 :: "nat list" where
  "pp_small_run_725 =
    [2, 216, 3, pp_sym_raw_string_literal, ts_builtin_sym_end, pp_sym_integer_literal, 214, 9,
      pp_sym_nothing, pp_aux_sym_preproc_include_token1, pp_aux_sym_define_token1,
      pp_aux_sym_preproc_if_token1, pp_aux_sym_undef_token1, pp_aux_sym_preproc_nothing_token1,
      pp_aux_sym_string_literal_token1, pp_aux_sym_char_literal_token1, pp_sym_comment]"

definition pp_small_run_742 :: "nat list" where
  "pp_small_run_742 =
    [5, 250, 1, pp_aux_sym_preproc_if_token2, 252, 1, pp_aux_sym_preproc_elif_token1, 254, 1,
      pp_aux_sym_preproc_else_token1, 104, 1, pp_sym_preproc_else, 64, 2, pp_sym_preproc_elif,
      pp_aux_sym_preproc_if_repeat1]"

definition pp_small_run_759 :: "nat list" where
  "pp_small_run_759 =
    [5, 252, 1, pp_aux_sym_preproc_elif_token1, 254, 1, pp_aux_sym_preproc_else_token1, 256, 1,
      pp_aux_sym_preproc_if_token2, 109, 1, pp_sym_preproc_else, 64, 2, pp_sym_preproc_elif,
      pp_aux_sym_preproc_if_repeat1]"

definition pp_small_run_776 :: "nat list" where
  "pp_small_run_776 =
    [5, 252, 1, pp_aux_sym_preproc_elif_token1, 254, 1, pp_aux_sym_preproc_else_token1, 258, 1,
      pp_aux_sym_preproc_if_token2, 102, 1, pp_sym_preproc_else, 64, 2, pp_sym_preproc_elif,
      pp_aux_sym_preproc_if_repeat1]"

definition pp_small_run_793 :: "nat list" where
  "pp_small_run_793 =
    [5, 252, 1, pp_aux_sym_preproc_elif_token1, 254, 1, pp_aux_sym_preproc_else_token1, 260, 1,
      pp_aux_sym_preproc_if_token2, 89, 1, pp_sym_preproc_else, 64, 2, pp_sym_preproc_elif,
      pp_aux_sym_preproc_if_repeat1]"

definition pp_small_run_810 :: "nat list" where
  "pp_small_run_810 =
    [5, 252, 1, pp_aux_sym_preproc_elif_token1, 254, 1, pp_aux_sym_preproc_else_token1, 262, 1,
      pp_aux_sym_preproc_if_token2, 100, 1, pp_sym_preproc_else, 64, 2, pp_sym_preproc_elif,
      pp_aux_sym_preproc_if_repeat1]"

definition pp_small_run_827 :: "nat list" where
  "pp_small_run_827 =
    [5, 252, 1, pp_aux_sym_preproc_elif_token1, 254, 1, pp_aux_sym_preproc_else_token1, 264, 1,
      pp_aux_sym_preproc_if_token2, 114, 1, pp_sym_preproc_else, 64, 2, pp_sym_preproc_elif,
      pp_aux_sym_preproc_if_repeat1]"

definition pp_small_run_844 :: "nat list" where
  "pp_small_run_844 =
    [3, 268, 1, pp_aux_sym_preproc_elif_token1, 266, 2, pp_aux_sym_preproc_if_token2,
      pp_aux_sym_preproc_else_token1, 64, 2, pp_sym_preproc_elif, pp_aux_sym_preproc_if_repeat1]"

definition pp_small_run_856 :: "nat list" where
  "pp_small_run_856 =
    [4, 271, 1, pp_sym_identifier, 273, 1, pp_anon_sym_LT, 275, 1,
      pp_aux_sym_string_literal_token1, 46, 1, pp_sym_string_literal]"

definition pp_small_run_869 :: "nat list" where
  "pp_small_run_869 =
    [4, 277, 1, pp_sym_identifier, 279, 1, pp_anon_sym_LT, 281, 1,
      pp_aux_sym_string_literal_token1, 20, 1, pp_sym_string_literal]"

definition pp_small_run_882 :: "nat list" where
  "pp_small_run_882 =
    [4, 283, 1, pp_sym_identifier, 285, 1, pp_anon_sym_LT, 287, 1,
      pp_aux_sym_string_literal_token1, 42, 1, pp_sym_string_literal]"

definition pp_small_run_895 :: "nat list" where
  "pp_small_run_895 =
    [3, 289, 1, pp_sym_preproc_continuation_line, 291, 1, pp_sym_preproc_line, 81, 1,
      pp_aux_sym_define_repeat1]"

definition pp_small_run_905 :: "nat list" where
  "pp_small_run_905 =
    [3, 293, 1, pp_sym_preproc_continuation_line, 295, 1, pp_sym_preproc_line, 74, 1,
      pp_aux_sym_define_repeat1]"

definition pp_small_run_915 :: "nat list" where
  "pp_small_run_915 =
    [3, 293, 1, pp_sym_preproc_continuation_line, 297, 1, pp_sym_preproc_line, 74, 1,
      pp_aux_sym_define_repeat1]"

definition pp_small_run_925 :: "nat list" where
  "pp_small_run_925 =
    [3, 293, 1, pp_sym_preproc_continuation_line, 299, 1, pp_sym_preproc_line, 74, 1,
      pp_aux_sym_define_repeat1]"

definition pp_small_run_935 :: "nat list" where
  "pp_small_run_935 =
    [3, 301, 1, pp_sym_preproc_continuation_line, 303, 1, pp_sym_preproc_line, 71, 1,
      pp_aux_sym_define_repeat1]"

definition pp_small_run_945 :: "nat list" where
  "pp_small_run_945 =
    [3, 305, 1, pp_sym_preproc_continuation_line, 307, 1, pp_sym_preproc_line, 76, 1,
      pp_aux_sym_define_repeat1]"

definition pp_small_run_955 :: "nat list" where
  "pp_small_run_955 =
    [3, 309, 1, pp_sym_preproc_continuation_line, 312, 1, pp_sym_preproc_line, 74, 1,
      pp_aux_sym_define_repeat1]"

definition pp_small_run_965 :: "nat list" where
  "pp_small_run_965 =
    [3, 293, 1, pp_sym_preproc_continuation_line, 314, 1, pp_sym_preproc_line, 74, 1,
      pp_aux_sym_define_repeat1]"

definition pp_small_run_975 :: "nat list" where
  "pp_small_run_975 =
    [3, 293, 1, pp_sym_preproc_continuation_line, 316, 1, pp_sym_preproc_line, 74, 1,
      pp_aux_sym_define_repeat1]"

definition pp_small_run_985 :: "nat list" where
  "pp_small_run_985 =
    [3, 318, 1, pp_sym_preproc_continuation_line, 320, 1, pp_sym_preproc_line, 78, 1,
      pp_aux_sym_define_repeat1]"

definition pp_small_run_995 :: "nat list" where
  "pp_small_run_995 =
    [3, 293, 1, pp_sym_preproc_continuation_line, 322, 1, pp_sym_preproc_line, 74, 1,
      pp_aux_sym_define_repeat1]"

definition pp_small_run_1005 :: "nat list" where
  "pp_small_run_1005 =
    [3, 324, 1, pp_sym_preproc_continuation_line, 326, 1, pp_sym_preproc_line, 70, 1,
      pp_aux_sym_define_repeat1]"

definition pp_small_run_1015 :: "nat list" where
  "pp_small_run_1015 =
    [3, 328, 1, pp_sym_preproc_continuation_line, 330, 1, pp_sym_preproc_line, 82, 1,
      pp_aux_sym_define_repeat1]"

definition pp_small_run_1025 :: "nat list" where
  "pp_small_run_1025 =
    [3, 293, 1, pp_sym_preproc_continuation_line, 332, 1, pp_sym_preproc_line, 74, 1,
      pp_aux_sym_define_repeat1]"

definition pp_small_run_1035 :: "nat list" where
  "pp_small_run_1035 =
    [3, 293, 1, pp_sym_preproc_continuation_line, 334, 1, pp_sym_preproc_line, 74, 1,
      pp_aux_sym_define_repeat1]"

definition pp_small_run_1045 :: "nat list" where
  "pp_small_run_1045 =
    [3, 336, 1, pp_sym_preproc_continuation_line, 338, 1, pp_sym_preproc_line, 85, 1,
      pp_aux_sym_define_repeat1]"

definition pp_small_run_1055 :: "nat list" where
  "pp_small_run_1055 =
    [3, 340, 1, pp_sym_preproc_continuation_line, 342, 1, pp_sym_preproc_line, 69, 1,
      pp_aux_sym_define_repeat1]"

definition pp_small_run_1065 :: "nat list" where
  "pp_small_run_1065 =
    [3, 293, 1, pp_sym_preproc_continuation_line, 344, 1, pp_sym_preproc_line, 74, 1,
      pp_aux_sym_define_repeat1]"

definition pp_small_run_1075 :: "nat list" where
  "pp_small_run_1075 =
    [3, 346, 1, pp_sym_preproc_continuation_line, 348, 1, pp_sym_preproc_line, 75, 1,
      pp_aux_sym_define_repeat1]"

definition pp_small_run_1085 :: "nat list" where
  "pp_small_run_1085 =
    [1, 350, 1, pp_anon_sym_LF]"

definition pp_small_run_1089 :: "nat list" where
  "pp_small_run_1089 =
    [1, 352, 1, pp_anon_sym_LF]"

definition pp_small_run_1093 :: "nat list" where
  "pp_small_run_1093 =
    [1, 354, 1, pp_aux_sym_preproc_if_token2]"

definition pp_small_run_1097 :: "nat list" where
  "pp_small_run_1097 =
    [1, 356, 1, pp_anon_sym_LF]"

definition pp_small_run_1101 :: "nat list" where
  "pp_small_run_1101 =
    [1, 358, 1, pp_sym_identifier]"

definition pp_small_run_1105 :: "nat list" where
  "pp_small_run_1105 =
    [1, 360, 1, pp_sym_path]"

definition pp_small_run_1109 :: "nat list" where
  "pp_small_run_1109 =
    [1, 362, 1, pp_anon_sym_GT]"

definition pp_small_run_1113 :: "nat list" where
  "pp_small_run_1113 =
    [1, 262, 1, pp_aux_sym_preproc_if_token2]"

definition pp_small_run_1117 :: "nat list" where
  "pp_small_run_1117 =
    [1, 364, 1, pp_sym_identifier]"

definition pp_small_run_1121 :: "nat list" where
  "pp_small_run_1121 =
    [1, 366, 1, pp_anon_sym_LF]"

definition pp_small_run_1125 :: "nat list" where
  "pp_small_run_1125 =
    [1, 368, 1, pp_anon_sym_LF]"

definition pp_small_run_1129 :: "nat list" where
  "pp_small_run_1129 =
    [1, 370, 1, pp_anon_sym_GT]"

definition pp_small_run_1133 :: "nat list" where
  "pp_small_run_1133 =
    [1, 372, 1, pp_anon_sym_LF]"

definition pp_small_run_1137 :: "nat list" where
  "pp_small_run_1137 =
    [1, 250, 1, pp_aux_sym_preproc_if_token2]"

definition pp_small_run_1141 :: "nat list" where
  "pp_small_run_1141 =
    [1, 264, 1, pp_aux_sym_preproc_if_token2]"

definition pp_small_run_1145 :: "nat list" where
  "pp_small_run_1145 =
    [1, 374, 1, pp_aux_sym_preproc_if_token2]"

definition pp_small_run_1149 :: "nat list" where
  "pp_small_run_1149 =
    [1, 376, 1, pp_anon_sym_LF]"

definition pp_small_run_1153 :: "nat list" where
  "pp_small_run_1153 =
    [1, 378, 1, pp_aux_sym_preproc_if_token2]"

definition pp_small_run_1157 :: "nat list" where
  "pp_small_run_1157 =
    [1, 380, 1, pp_anon_sym_LF]"

definition pp_small_run_1161 :: "nat list" where
  "pp_small_run_1161 =
    [1, 382, 1, pp_sym_path]"

definition pp_small_run_1165 :: "nat list" where
  "pp_small_run_1165 =
    [1, 256, 1, pp_aux_sym_preproc_if_token2]"

definition pp_small_run_1169 :: "nat list" where
  "pp_small_run_1169 =
    [1, 384, 1, pp_anon_sym_LF]"

definition pp_small_run_1173 :: "nat list" where
  "pp_small_run_1173 =
    [1, 258, 1, pp_aux_sym_preproc_if_token2]"

definition pp_small_run_1177 :: "nat list" where
  "pp_small_run_1177 =
    [1, 386, 1, pp_anon_sym_LF]"

definition pp_small_run_1181 :: "nat list" where
  "pp_small_run_1181 =
    [1, 388, 1, pp_sym_path]"

definition pp_small_run_1185 :: "nat list" where
  "pp_small_run_1185 =
    [1, 390, 1, pp_anon_sym_GT]"

definition pp_small_run_1189 :: "nat list" where
  "pp_small_run_1189 =
    [1, 392, 1, pp_anon_sym_LF]"

definition pp_small_run_1193 :: "nat list" where
  "pp_small_run_1193 =
    [1, 260, 1, pp_aux_sym_preproc_if_token2]"

definition pp_small_run_1197 :: "nat list" where
  "pp_small_run_1197 =
    [1, 394, 1, ts_builtin_sym_end]"

definition pp_small_run_1201 :: "nat list" where
  "pp_small_run_1201 =
    [1, 396, 1, pp_sym_identifier]"

definition pp_small_run_1205 :: "nat list" where
  "pp_small_run_1205 =
    [1, 398, 1, pp_sym_identifier]"

definition pp_small_run_1209 :: "nat list" where
  "pp_small_run_1209 =
    [1, 400, 1, pp_sym_identifier]"

definition pp_small_run_1213 :: "nat list" where
  "pp_small_run_1213 =
    [1, 402, 1, pp_sym_identifier]"

definition pp_small_run_1217 :: "nat list" where
  "pp_small_run_1217 =
    [1, 404, 1, pp_anon_sym_LF]"

definition pp_ts_small_parse_table :: "(nat \<times> nat list) list" where
  "pp_ts_small_parse_table =
    [(0, pp_small_run_0), (19, pp_small_run_19), (38, pp_small_run_38), (57, pp_small_run_57),
     (76, pp_small_run_76), (95, pp_small_run_95), (114, pp_small_run_114), (133,
       pp_small_run_133),
     (152, pp_small_run_152), (171, pp_small_run_171), (190, pp_small_run_190), (209,
       pp_small_run_209),
     (228, pp_small_run_228), (247, pp_small_run_247), (266, pp_small_run_266), (283,
       pp_small_run_283),
     (300, pp_small_run_300), (317, pp_small_run_317), (334, pp_small_run_334), (351,
       pp_small_run_351),
     (368, pp_small_run_368), (385, pp_small_run_385), (402, pp_small_run_402), (419,
       pp_small_run_419),
     (436, pp_small_run_436), (453, pp_small_run_453), (470, pp_small_run_470), (487,
       pp_small_run_487),
     (504, pp_small_run_504), (521, pp_small_run_521), (538, pp_small_run_538), (555,
       pp_small_run_555),
     (572, pp_small_run_572), (589, pp_small_run_589), (606, pp_small_run_606), (623,
       pp_small_run_623),
     (640, pp_small_run_640), (657, pp_small_run_657), (674, pp_small_run_674), (691,
       pp_small_run_691),
     (708, pp_small_run_708), (725, pp_small_run_725), (742, pp_small_run_742), (759,
       pp_small_run_759),
     (776, pp_small_run_776), (793, pp_small_run_793), (810, pp_small_run_810), (827,
       pp_small_run_827),
     (844, pp_small_run_844), (856, pp_small_run_856), (869, pp_small_run_869), (882,
       pp_small_run_882),
     (895, pp_small_run_895), (905, pp_small_run_905), (915, pp_small_run_915), (925,
       pp_small_run_925),
     (935, pp_small_run_935), (945, pp_small_run_945), (955, pp_small_run_955), (965,
       pp_small_run_965),
     (975, pp_small_run_975), (985, pp_small_run_985), (995, pp_small_run_995), (1005,
       pp_small_run_1005),
     (1015, pp_small_run_1015), (1025, pp_small_run_1025), (1035, pp_small_run_1035), (1045,
       pp_small_run_1045),
     (1055, pp_small_run_1055), (1065, pp_small_run_1065), (1075, pp_small_run_1075), (1085,
       pp_small_run_1085),
     (1089, pp_small_run_1089), (1093, pp_small_run_1093), (1097, pp_small_run_1097), (1101,
       pp_small_run_1101),
     (1105, pp_small_run_1105), (1109, pp_small_run_1109), (1113, pp_small_run_1113), (1117,
       pp_small_run_1117),
     (1121, pp_small_run_1121), (1125, pp_small_run_1125), (1129, pp_small_run_1129), (1133,
       pp_small_run_1133),
     (1137, pp_small_run_1137), (1141, pp_small_run_1141), (1145, pp_small_run_1145), (1149,
       pp_small_run_1149),
     (1153, pp_small_run_1153), (1157, pp_small_run_1157), (1161, pp_small_run_1161), (1165,
       pp_small_run_1165),
     (1169, pp_small_run_1169), (1173, pp_small_run_1173), (1177, pp_small_run_1177), (1181,
       pp_small_run_1181),
     (1185, pp_small_run_1185), (1189, pp_small_run_1189), (1193, pp_small_run_1193), (1197,
       pp_small_run_1197),
     (1201, pp_small_run_1201), (1205, pp_small_run_1205), (1209, pp_small_run_1209), (1213,
       pp_small_run_1213),
     (1217, pp_small_run_1217)]"

text \<open>\<^verbatim>\<open>SMALL_STATE(id)\<close> is \<^verbatim>\<open>id - LARGE_STATE_COUNT\<close>.\<close>

definition pp_ts_small_parse_table_map :: "(nat \<times> nat) list" where
  "pp_ts_small_parse_table_map =
    [(SMALL_STATE pp_LARGE_STATE_COUNT 16, 0), (SMALL_STATE pp_LARGE_STATE_COUNT 17, 19),
     (SMALL_STATE pp_LARGE_STATE_COUNT 18, 38), (SMALL_STATE pp_LARGE_STATE_COUNT 19, 57),
     (SMALL_STATE pp_LARGE_STATE_COUNT 20, 76), (SMALL_STATE pp_LARGE_STATE_COUNT 21, 95),
     (SMALL_STATE pp_LARGE_STATE_COUNT 22, 114), (SMALL_STATE pp_LARGE_STATE_COUNT 23, 133),
     (SMALL_STATE pp_LARGE_STATE_COUNT 24, 152), (SMALL_STATE pp_LARGE_STATE_COUNT 25, 171),
     (SMALL_STATE pp_LARGE_STATE_COUNT 26, 190), (SMALL_STATE pp_LARGE_STATE_COUNT 27, 209),
     (SMALL_STATE pp_LARGE_STATE_COUNT 28, 228), (SMALL_STATE pp_LARGE_STATE_COUNT 29, 247),
     (SMALL_STATE pp_LARGE_STATE_COUNT 30, 266), (SMALL_STATE pp_LARGE_STATE_COUNT 31, 283),
     (SMALL_STATE pp_LARGE_STATE_COUNT 32, 300), (SMALL_STATE pp_LARGE_STATE_COUNT 33, 317),
     (SMALL_STATE pp_LARGE_STATE_COUNT 34, 334), (SMALL_STATE pp_LARGE_STATE_COUNT 35, 351),
     (SMALL_STATE pp_LARGE_STATE_COUNT 36, 368), (SMALL_STATE pp_LARGE_STATE_COUNT 37, 385),
     (SMALL_STATE pp_LARGE_STATE_COUNT 38, 402), (SMALL_STATE pp_LARGE_STATE_COUNT 39, 419),
     (SMALL_STATE pp_LARGE_STATE_COUNT 40, 436), (SMALL_STATE pp_LARGE_STATE_COUNT 41, 453),
     (SMALL_STATE pp_LARGE_STATE_COUNT 42, 470), (SMALL_STATE pp_LARGE_STATE_COUNT 43, 487),
     (SMALL_STATE pp_LARGE_STATE_COUNT 44, 504), (SMALL_STATE pp_LARGE_STATE_COUNT 45, 521),
     (SMALL_STATE pp_LARGE_STATE_COUNT 46, 538), (SMALL_STATE pp_LARGE_STATE_COUNT 47, 555),
     (SMALL_STATE pp_LARGE_STATE_COUNT 48, 572), (SMALL_STATE pp_LARGE_STATE_COUNT 49, 589),
     (SMALL_STATE pp_LARGE_STATE_COUNT 50, 606), (SMALL_STATE pp_LARGE_STATE_COUNT 51, 623),
     (SMALL_STATE pp_LARGE_STATE_COUNT 52, 640), (SMALL_STATE pp_LARGE_STATE_COUNT 53, 657),
     (SMALL_STATE pp_LARGE_STATE_COUNT 54, 674), (SMALL_STATE pp_LARGE_STATE_COUNT 55, 691),
     (SMALL_STATE pp_LARGE_STATE_COUNT 56, 708), (SMALL_STATE pp_LARGE_STATE_COUNT 57, 725),
     (SMALL_STATE pp_LARGE_STATE_COUNT 58, 742), (SMALL_STATE pp_LARGE_STATE_COUNT 59, 759),
     (SMALL_STATE pp_LARGE_STATE_COUNT 60, 776), (SMALL_STATE pp_LARGE_STATE_COUNT 61, 793),
     (SMALL_STATE pp_LARGE_STATE_COUNT 62, 810), (SMALL_STATE pp_LARGE_STATE_COUNT 63, 827),
     (SMALL_STATE pp_LARGE_STATE_COUNT 64, 844), (SMALL_STATE pp_LARGE_STATE_COUNT 65, 856),
     (SMALL_STATE pp_LARGE_STATE_COUNT 66, 869), (SMALL_STATE pp_LARGE_STATE_COUNT 67, 882),
     (SMALL_STATE pp_LARGE_STATE_COUNT 68, 895), (SMALL_STATE pp_LARGE_STATE_COUNT 69, 905),
     (SMALL_STATE pp_LARGE_STATE_COUNT 70, 915), (SMALL_STATE pp_LARGE_STATE_COUNT 71, 925),
     (SMALL_STATE pp_LARGE_STATE_COUNT 72, 935), (SMALL_STATE pp_LARGE_STATE_COUNT 73, 945),
     (SMALL_STATE pp_LARGE_STATE_COUNT 74, 955), (SMALL_STATE pp_LARGE_STATE_COUNT 75, 965),
     (SMALL_STATE pp_LARGE_STATE_COUNT 76, 975), (SMALL_STATE pp_LARGE_STATE_COUNT 77, 985),
     (SMALL_STATE pp_LARGE_STATE_COUNT 78, 995), (SMALL_STATE pp_LARGE_STATE_COUNT 79, 1005),
     (SMALL_STATE pp_LARGE_STATE_COUNT 80, 1015), (SMALL_STATE pp_LARGE_STATE_COUNT 81, 1025),
     (SMALL_STATE pp_LARGE_STATE_COUNT 82, 1035), (SMALL_STATE pp_LARGE_STATE_COUNT 83, 1045),
     (SMALL_STATE pp_LARGE_STATE_COUNT 84, 1055), (SMALL_STATE pp_LARGE_STATE_COUNT 85, 1065),
     (SMALL_STATE pp_LARGE_STATE_COUNT 86, 1075), (SMALL_STATE pp_LARGE_STATE_COUNT 87, 1085),
     (SMALL_STATE pp_LARGE_STATE_COUNT 88, 1089), (SMALL_STATE pp_LARGE_STATE_COUNT 89, 1093),
     (SMALL_STATE pp_LARGE_STATE_COUNT 90, 1097), (SMALL_STATE pp_LARGE_STATE_COUNT 91, 1101),
     (SMALL_STATE pp_LARGE_STATE_COUNT 92, 1105), (SMALL_STATE pp_LARGE_STATE_COUNT 93, 1109),
     (SMALL_STATE pp_LARGE_STATE_COUNT 94, 1113), (SMALL_STATE pp_LARGE_STATE_COUNT 95, 1117),
     (SMALL_STATE pp_LARGE_STATE_COUNT 96, 1121), (SMALL_STATE pp_LARGE_STATE_COUNT 97, 1125),
     (SMALL_STATE pp_LARGE_STATE_COUNT 98, 1129), (SMALL_STATE pp_LARGE_STATE_COUNT 99, 1133),
     (SMALL_STATE pp_LARGE_STATE_COUNT 100, 1137), (SMALL_STATE pp_LARGE_STATE_COUNT 101, 1141),
     (SMALL_STATE pp_LARGE_STATE_COUNT 102, 1145), (SMALL_STATE pp_LARGE_STATE_COUNT 103, 1149),
     (SMALL_STATE pp_LARGE_STATE_COUNT 104, 1153), (SMALL_STATE pp_LARGE_STATE_COUNT 105, 1157),
     (SMALL_STATE pp_LARGE_STATE_COUNT 106, 1161), (SMALL_STATE pp_LARGE_STATE_COUNT 107, 1165),
     (SMALL_STATE pp_LARGE_STATE_COUNT 108, 1169), (SMALL_STATE pp_LARGE_STATE_COUNT 109, 1173),
     (SMALL_STATE pp_LARGE_STATE_COUNT 110, 1177), (SMALL_STATE pp_LARGE_STATE_COUNT 111, 1181),
     (SMALL_STATE pp_LARGE_STATE_COUNT 112, 1185), (SMALL_STATE pp_LARGE_STATE_COUNT 113, 1189),
     (SMALL_STATE pp_LARGE_STATE_COUNT 114, 1193), (SMALL_STATE pp_LARGE_STATE_COUNT 115, 1197),
     (SMALL_STATE pp_LARGE_STATE_COUNT 116, 1201), (SMALL_STATE pp_LARGE_STATE_COUNT 117, 1205),
     (SMALL_STATE pp_LARGE_STATE_COUNT 118, 1209), (SMALL_STATE pp_LARGE_STATE_COUNT 119, 1213),
     (SMALL_STATE pp_LARGE_STATE_COUNT 120, 1217)]"

section \<open>Parse actions\<close>

definition pp_parse_actions_0 :: "(nat \<times> TSParseActionEntry list) list" where
  "pp_parse_actions_0 =
    [(0, [Entry 0 False]),
     (1, [Entry 1 False, RECOVER]),
     (3, [Entry 1 True, REDUCE pp_sym_translation_unit 0 0 0]),
     (5, [Entry 1 False, SHIFT 12]),
     (7, [Entry 1 False, SHIFT 67]),
     (9, [Entry 1 False, SHIFT 91]),
     (11, [Entry 1 False, SHIFT 4]),
     (13, [Entry 1 False, SHIFT 95]),
     (15, [Entry 1 False, SHIFT 86]),
     (17, [Entry 1 False, SHIFT 33]),
     (19, [Entry 1 False, SHIFT 34]),
     (21, [Entry 1 True, SHIFT 12]),
     (23, [Entry 1 False, SHIFT 8]),
     (25, [Entry 1 False, SHIFT 66]),
     (27, [Entry 1 False, SHIFT 116]),
     (29, [Entry 1 False, SHIFT 3]),
     (31, [Entry 1 False, SHIFT 35]),
     (33, [Entry 1 False, SHIFT 10]),
     (35, [Entry 1 False, SHIFT 11]),
     (37, [Entry 1 False, SHIFT 117]),
     (39, [Entry 1 False, SHIFT 73]),
     (41, [Entry 1 False, SHIFT 18]),
     (43, [Entry 1 False, SHIFT 19]),
     (45, [Entry 1 True, SHIFT 8]),
     (47, [Entry 1 False, SHIFT 5]),
     (49, [Entry 1 False, SHIFT 21]),
     (51, [Entry 1 True, SHIFT 5]),
     (53, [Entry 1 False, SHIFT 2]),
     (55, [Entry 1 False, SHIFT 57]),
     (57, [Entry 1 True, SHIFT 2]),
     (59, [Entry 1 False, SHIFT 23]),
     (61, [Entry 1 False, SHIFT 7]),
     (63, [Entry 1 False, SHIFT 47]),
     (65, [Entry 1 True, SHIFT 7]),
     (67, [Entry 1 False, SHIFT 49]),
     (69, [Entry 2 False, REDUCE pp_aux_sym_translation_unit_repeat1 2 0 0, SHIFT_REPEAT 8]),
     (72, [Entry 2 False, REDUCE pp_aux_sym_translation_unit_repeat1 2 0 0, SHIFT_REPEAT 66]),
     (75, [Entry 2 False, REDUCE pp_aux_sym_translation_unit_repeat1 2 0 0, SHIFT_REPEAT 116]),
     (78, [Entry 2 False, REDUCE pp_aux_sym_translation_unit_repeat1 2 0 0, SHIFT_REPEAT 3]),
     (81, [Entry 1 False, REDUCE pp_aux_sym_translation_unit_repeat1 2 0 0]),
     (83, [Entry 2 False, REDUCE pp_aux_sym_translation_unit_repeat1 2 0 0, SHIFT_REPEAT 117]),
     (86, [Entry 2 False, REDUCE pp_aux_sym_translation_unit_repeat1 2 0 0, SHIFT_REPEAT 73]),
     (89, [Entry 2 False, REDUCE pp_aux_sym_translation_unit_repeat1 2 0 0, SHIFT_REPEAT 18]),
     (92, [Entry 2 False, REDUCE pp_aux_sym_translation_unit_repeat1 2 0 0, SHIFT_REPEAT 19]),
     (95, [Entry 2 True, REDUCE pp_aux_sym_translation_unit_repeat1 2 0 0, SHIFT_REPEAT 8]),
     (98, [Entry 1 False, REDUCE pp_sym_preproc_elif 2 0 0]),
     (100, [Entry 1 False, SHIFT 9]),
     (102, [Entry 1 False, REDUCE pp_sym_preproc_elif 1 0 0]),
     (104, [Entry 1 True, SHIFT 9]),
     (106, [Entry 1 False, SHIFT 13]),
     (108, [Entry 1 False, SHIFT 65]),
     (110, [Entry 1 False, SHIFT 118]),
     (112, [Entry 1 False, SHIFT 6]),
     (114, [Entry 1 False, REDUCE pp_sym_preproc_else 1 0 0]),
     (116, [Entry 1 False, SHIFT 119]),
     (118, [Entry 1 False, SHIFT 77]),
     (120, [Entry 1 False, SHIFT 44]),
     (122, [Entry 1 False, SHIFT 45]),
     (124, [Entry 1 True, SHIFT 13]),
     (126, [Entry 1 True, REDUCE pp_sym_translation_unit 1 0 0])]"

definition pp_parse_actions_1 :: "(nat \<times> TSParseActionEntry list) list" where
  "pp_parse_actions_1 =
    [(128, [Entry 1 False, SHIFT 14]),
     (130, [Entry 1 True, SHIFT 14]),
     (132, [Entry 1 False, SHIFT 15]),
     (134, [Entry 1 False, REDUCE pp_sym_preproc_else 2 0 0]),
     (136, [Entry 1 True, SHIFT 15]),
     (138, [Entry 1 True, REDUCE pp_aux_sym_translation_unit_repeat1 2 0 0]),
     (140, [Entry 2 False, REDUCE pp_aux_sym_translation_unit_repeat1 2 0 0, SHIFT_REPEAT 14]),
     (143, [Entry 2 False, REDUCE pp_aux_sym_translation_unit_repeat1 2 0 0, SHIFT_REPEAT 67]),
     (146, [Entry 2 False, REDUCE pp_aux_sym_translation_unit_repeat1 2 0 0, SHIFT_REPEAT 91]),
     (149, [Entry 2 False, REDUCE pp_aux_sym_translation_unit_repeat1 2 0 0, SHIFT_REPEAT 4]),
     (152, [Entry 2 False, REDUCE pp_aux_sym_translation_unit_repeat1 2 0 0, SHIFT_REPEAT 95]),
     (155, [Entry 2 False, REDUCE pp_aux_sym_translation_unit_repeat1 2 0 0, SHIFT_REPEAT 86]),
     (158, [Entry 2 False, REDUCE pp_aux_sym_translation_unit_repeat1 2 0 0, SHIFT_REPEAT 33]),
     (161, [Entry 2 False, REDUCE pp_aux_sym_translation_unit_repeat1 2 0 0, SHIFT_REPEAT 34]),
     (164, [Entry 2 True, REDUCE pp_aux_sym_translation_unit_repeat1 2 0 0, SHIFT_REPEAT 14]),
     (167, [Entry 2 False, REDUCE pp_aux_sym_translation_unit_repeat1 2 0 0, SHIFT_REPEAT 15]),
     (170, [Entry 2 False, REDUCE pp_aux_sym_translation_unit_repeat1 2 0 0, SHIFT_REPEAT 65]),
     (173, [Entry 2 False, REDUCE pp_aux_sym_translation_unit_repeat1 2 0 0, SHIFT_REPEAT 118]),
     (176, [Entry 2 False, REDUCE pp_aux_sym_translation_unit_repeat1 2 0 0, SHIFT_REPEAT 6]),
     (179, [Entry 2 False, REDUCE pp_aux_sym_translation_unit_repeat1 2 0 0, SHIFT_REPEAT 119]),
     (182, [Entry 2 False, REDUCE pp_aux_sym_translation_unit_repeat1 2 0 0, SHIFT_REPEAT 77]),
     (185, [Entry 2 False, REDUCE pp_aux_sym_translation_unit_repeat1 2 0 0, SHIFT_REPEAT 44]),
     (188, [Entry 2 False, REDUCE pp_aux_sym_translation_unit_repeat1 2 0 0, SHIFT_REPEAT 45]),
     (191, [Entry 2 True, REDUCE pp_aux_sym_translation_unit_repeat1 2 0 0, SHIFT_REPEAT 15]),
     (194, [Entry 1 False, REDUCE pp_sym_preproc_if 5 0 0]),
     (196, [Entry 1 True, REDUCE pp_sym_preproc_if 5 0 0]),
     (198, [Entry 1 False, REDUCE pp_sym_undef 5 0 0]),
     (200, [Entry 1 True, REDUCE pp_sym_undef 5 0 0]),
     (202, [Entry 1 False, REDUCE pp_sym_string_literal 1 0 0]),
     (204, [Entry 1 True, REDUCE pp_sym_string_literal 1 0 0]),
     (206, [Entry 1 False, REDUCE pp_sym_char_literal 1 0 0]),
     (208, [Entry 1 True, REDUCE pp_sym_char_literal 1 0 0]),
     (210, [Entry 1 False, REDUCE pp_sym_preproc_include 2 0 0]),
     (212, [Entry 1 True, REDUCE pp_sym_preproc_include 2 0 0]),
     (214, [Entry 1 False, REDUCE pp_sym_preproc_if 2 0 0]),
     (216, [Entry 1 True, REDUCE pp_sym_preproc_if 2 0 0]),
     (218, [Entry 1 False, REDUCE pp_sym_preproc_nothing 2 0 0]),
     (220, [Entry 1 True, REDUCE pp_sym_preproc_nothing 2 0 0]),
     (222, [Entry 1 False, REDUCE pp_sym_preproc_if 3 0 0]),
     (224, [Entry 1 True, REDUCE pp_sym_preproc_if 3 0 0]),
     (226, [Entry 1 False, REDUCE pp_sym_preproc_nothing 3 0 0]),
     (228, [Entry 1 True, REDUCE pp_sym_preproc_nothing 3 0 0]),
     (230, [Entry 1 False, REDUCE pp_sym_preproc_include 4 0 0]),
     (232, [Entry 1 True, REDUCE pp_sym_preproc_include 4 0 0]),
     (234, [Entry 1 False, REDUCE pp_sym_define 4 0 0]),
     (236, [Entry 1 True, REDUCE pp_sym_define 4 0 0]),
     (238, [Entry 1 False, REDUCE pp_sym_preproc_if 4 0 0]),
     (240, [Entry 1 True, REDUCE pp_sym_preproc_if 4 0 0]),
     (242, [Entry 1 False, REDUCE pp_sym_undef 4 0 0]),
     (244, [Entry 1 True, REDUCE pp_sym_undef 4 0 0]),
     (246, [Entry 1 False, REDUCE pp_sym_define 5 0 0]),
     (248, [Entry 1 True, REDUCE pp_sym_define 5 0 0]),
     (250, [Entry 1 True, SHIFT 53]),
     (252, [Entry 1 True, SHIFT 10]),
     (254, [Entry 1 True, SHIFT 11]),
     (256, [Entry 1 True, SHIFT 35]),
     (258, [Entry 1 True, SHIFT 39]),
     (260, [Entry 1 True, SHIFT 27]),
     (262, [Entry 1 True, SHIFT 49]),
     (264, [Entry 1 True, SHIFT 23])]"

definition pp_parse_actions_2 :: "(nat \<times> TSParseActionEntry list) list" where
  "pp_parse_actions_2 =
    [(266, [Entry 1 True, REDUCE pp_aux_sym_preproc_if_repeat1 2 0 0]),
     (268, [Entry 2 True, REDUCE pp_aux_sym_preproc_if_repeat1 2 0 0, SHIFT_REPEAT 10]),
     (271, [Entry 1 True, SHIFT 46]),
     (273, [Entry 1 True, SHIFT 111]),
     (275, [Entry 1 True, SHIFT 44]),
     (277, [Entry 1 True, SHIFT 20]),
     (279, [Entry 1 True, SHIFT 106]),
     (281, [Entry 1 True, SHIFT 18]),
     (283, [Entry 1 True, SHIFT 42]),
     (285, [Entry 1 True, SHIFT 92]),
     (287, [Entry 1 True, SHIFT 33]),
     (289, [Entry 1 True, SHIFT 81]),
     (291, [Entry 1 False, SHIFT 113]),
     (293, [Entry 1 True, SHIFT 74]),
     (295, [Entry 1 False, SHIFT 105]),
     (297, [Entry 1 False, SHIFT 110]),
     (299, [Entry 1 False, SHIFT 96]),
     (301, [Entry 1 True, SHIFT 71]),
     (303, [Entry 1 False, SHIFT 97]),
     (305, [Entry 1 True, SHIFT 76]),
     (307, [Entry 1 False, SHIFT 22]),
     (309, [Entry 2 True, REDUCE pp_aux_sym_define_repeat1 2 0 0, SHIFT_REPEAT 74]),
     (312, [Entry 1 False, REDUCE pp_aux_sym_define_repeat1 2 0 0]),
     (314, [Entry 1 False, SHIFT 36]),
     (316, [Entry 1 False, SHIFT 24]),
     (318, [Entry 1 True, SHIFT 78]),
     (320, [Entry 1 False, SHIFT 48]),
     (322, [Entry 1 False, SHIFT 50]),
     (324, [Entry 1 True, SHIFT 70]),
     (326, [Entry 1 False, SHIFT 108]),
     (328, [Entry 1 True, SHIFT 82]),
     (330, [Entry 1 False, SHIFT 103]),
     (332, [Entry 1 False, SHIFT 88]),
     (334, [Entry 1 False, SHIFT 90]),
     (336, [Entry 1 True, SHIFT 85]),
     (338, [Entry 1 False, SHIFT 99]),
     (340, [Entry 1 True, SHIFT 69]),
     (342, [Entry 1 False, SHIFT 87]),
     (344, [Entry 1 False, SHIFT 120]),
     (346, [Entry 1 True, SHIFT 75]),
     (348, [Entry 1 False, SHIFT 32]),
     (350, [Entry 1 True, SHIFT 54]),
     (352, [Entry 1 True, SHIFT 29]),
     (354, [Entry 1 True, SHIFT 16]),
     (356, [Entry 1 True, SHIFT 17]),
     (358, [Entry 1 True, SHIFT 72]),
     (360, [Entry 1 True, SHIFT 93]),
     (362, [Entry 1 True, SHIFT 37]),
     (364, [Entry 1 True, SHIFT 79]),
     (366, [Entry 1 True, SHIFT 41]),
     (368, [Entry 1 True, SHIFT 38]),
     (370, [Entry 1 True, SHIFT 51]),
     (372, [Entry 1 True, SHIFT 52]),
     (374, [Entry 1 True, SHIFT 43]),
     (376, [Entry 1 True, SHIFT 28]),
     (378, [Entry 1 True, SHIFT 30]),
     (380, [Entry 1 True, SHIFT 56]),
     (382, [Entry 1 True, SHIFT 112]),
     (384, [Entry 1 True, SHIFT 40]),
     (386, [Entry 1 True, SHIFT 31])]"

definition pp_parse_actions_3 :: "(nat \<times> TSParseActionEntry list) list" where
  "pp_parse_actions_3 =
    [(388, [Entry 1 True, SHIFT 98]),
     (390, [Entry 1 True, SHIFT 25]),
     (392, [Entry 1 True, SHIFT 26]),
     (394, [Entry 1 True, ACCEPT_INPUT]),
     (396, [Entry 1 True, SHIFT 68]),
     (398, [Entry 1 True, SHIFT 80]),
     (400, [Entry 1 True, SHIFT 83]),
     (402, [Entry 1 True, SHIFT 84]),
     (404, [Entry 1 True, SHIFT 55])]"

definition pp_ts_parse_actions :: "(nat \<times> TSParseActionEntry list) list" where
  "pp_ts_parse_actions = pp_parse_actions_0 @ pp_parse_actions_1 @ pp_parse_actions_2 @ pp_parse_actions_3"

section \<open>External tokens and the language object\<close>

abbreviation (input) pp_ts_external_token_raw_string_literal :: nat where "pp_ts_external_token_raw_string_literal \<equiv> 0"

definition pp_ts_external_scanner_symbol_map :: "(nat \<times> TSSymbol) list" where
  "pp_ts_external_scanner_symbol_map =
    [(pp_ts_external_token_raw_string_literal, pp_sym_raw_string_literal)]"

definition pp_ts_external_scanner_states :: "(nat \<times> (nat \<times> bool) list) list" where
  "pp_ts_external_scanner_states =
    [(1, [(pp_ts_external_token_raw_string_literal, True)])]"

definition tree_sitter_preproc :: TSLanguage where
  "tree_sitter_preproc =
    \<lparr>abi_version = pp_LANGUAGE_VERSION,
     symbol_count = pp_SYMBOL_COUNT,
     alias_count = pp_ALIAS_COUNT,
     token_count = pp_TOKEN_COUNT,
     external_token_count = pp_EXTERNAL_TOKEN_COUNT,
     state_count = pp_STATE_COUNT,
     large_state_count = pp_LARGE_STATE_COUNT,
     production_id_count = pp_PRODUCTION_ID_COUNT,
     field_count = pp_FIELD_COUNT,
     max_alias_sequence_length = pp_MAX_ALIAS_SEQUENCE_LENGTH,
     parse_table = flat_table 0 pp_SYMBOL_COUNT pp_ts_parse_table,
     small_parse_table = designated_from 0 pp_ts_small_parse_table,
     small_parse_table_map = array_of 0 pp_ts_small_parse_table_map,
     parse_actions = designated_from (Entry 0 False) pp_ts_parse_actions,
     symbol_names = array_of [] pp_ts_symbol_names,
     field_names = None,
     field_map_slices = None,
     field_map_entries = None,
     symbol_metadata = array_of \<lparr>visible = False, named = False, supertype = False\<rparr> pp_ts_symbol_metadata,
     public_symbol_map = array_of 0 pp_ts_symbol_map,
     alias_map = list_array 0 pp_ts_non_terminal_alias_map,
     alias_sequences = flat_table 0 pp_MAX_ALIAS_SEQUENCE_LENGTH pp_ts_alias_sequences,
     lex_modes = array_of \<lparr>lex_state = 0, external_lex_state = 0\<rparr> pp_ts_lex_modes,
     language_lex = pp_ts_lex,
     keyword_lex_fn = None,
     keyword_capture_token = 0,
     external_states = flat_table False pp_EXTERNAL_TOKEN_COUNT pp_ts_external_scanner_states,
     external_symbol_map = array_of 0 pp_ts_external_scanner_symbol_map,
     primary_state_ids = array_of 0 pp_ts_primary_state_ids\<rparr>"
section \<open>The grammar\<close>

text \<open>
  The rules of \<^verbatim>\<open>tree-sitter-preproc/grammar.js\<close>. A rule whose body is a pattern is a token; the
  tokens inside other rules go by the names the generated parser gives them.
\<close>

definition pp_rules :: "(TSSymbol \<times> grammar_rule) list" where
  "pp_rules =
    [(pp_sym_translation_unit, REPEAT pp_aux_sym_translation_unit_repeat1 (SYM
      pp_sym__top_level_item)),
     (pp_sym__top_level_item, CHOICE [SYM pp_sym_string_literal, SYM pp_sym_char_literal, SYM
      pp_sym_raw_string_literal, SYM pp_sym_comment, SYM pp_sym_nothing, SYM pp_sym_define, SYM
      pp_sym_undef, SYM pp_sym_preproc_if, SYM pp_sym_preproc_include, SYM pp_sym_preproc_nothing,
      SYM pp_sym_integer_literal]),
     (pp_sym_preproc_include, SEQ [SYM pp_aux_sym_preproc_include_token1, CHOICE [SYM
      pp_sym_string_literal, SEQ [SYM pp_anon_sym_LT, SYM pp_sym_path, SYM pp_anon_sym_GT], SYM
      pp_sym_identifier]]),
     (pp_sym_define, SEQ [SYM pp_aux_sym_define_token1, SYM pp_sym_identifier, REPEAT
      pp_aux_sym_define_repeat1 (SYM pp_sym_preproc_continuation_line), SYM pp_sym_preproc_line,
      SYM pp_anon_sym_LF]),
     (pp_sym_preproc_if, SEQ [SYM pp_aux_sym_preproc_if_token1, REPEAT
      pp_aux_sym_translation_unit_repeat1 (SYM pp_sym__top_level_item), REPEAT
      pp_aux_sym_preproc_if_repeat1 (SYM pp_sym_preproc_elif), OPTIONAL (SYM pp_sym_preproc_else),
      SYM pp_aux_sym_preproc_if_token2]),
     (pp_sym_preproc_elif, SEQ [SYM pp_aux_sym_preproc_elif_token1, REPEAT
      pp_aux_sym_translation_unit_repeat1 (SYM pp_sym__top_level_item)]),
     (pp_sym_preproc_else, SEQ [SYM pp_aux_sym_preproc_else_token1, REPEAT
      pp_aux_sym_translation_unit_repeat1 (SYM pp_sym__top_level_item)]),
     (pp_sym_undef, SEQ [SYM pp_aux_sym_undef_token1, SYM pp_sym_identifier, REPEAT
      pp_aux_sym_define_repeat1 (SYM pp_sym_preproc_continuation_line), SYM pp_sym_preproc_line,
      SYM pp_anon_sym_LF]),
     (pp_sym_preproc_nothing, SEQ [SYM pp_aux_sym_preproc_nothing_token1, REPEAT
      pp_aux_sym_define_repeat1 (SYM pp_sym_preproc_continuation_line), SYM pp_sym_preproc_line]),
     (pp_sym_string_literal, SYM pp_aux_sym_string_literal_token1),
     (pp_sym_char_literal, SYM pp_aux_sym_char_literal_token1)]"

definition pp_grammar :: cfg where
  "pp_grammar = productions pp_rules"

lemma pp_grammar_eq:
  "pp_grammar =
    [(pp_sym_translation_unit, []),
     (pp_sym_translation_unit, [pp_aux_sym_translation_unit_repeat1]),
     (pp_sym__top_level_item, [pp_sym_string_literal]),
     (pp_sym__top_level_item, [pp_sym_char_literal]),
     (pp_sym__top_level_item, [pp_sym_raw_string_literal]),
     (pp_sym__top_level_item, [pp_sym_comment]),
     (pp_sym__top_level_item, [pp_sym_nothing]),
     (pp_sym__top_level_item, [pp_sym_define]),
     (pp_sym__top_level_item, [pp_sym_undef]),
     (pp_sym__top_level_item, [pp_sym_preproc_if]),
     (pp_sym__top_level_item, [pp_sym_preproc_include]),
     (pp_sym__top_level_item, [pp_sym_preproc_nothing]),
     (pp_sym__top_level_item, [pp_sym_integer_literal]),
     (pp_sym_preproc_include, [pp_aux_sym_preproc_include_token1, pp_sym_string_literal]),
     (pp_sym_preproc_include, [pp_aux_sym_preproc_include_token1, pp_anon_sym_LT, pp_sym_path,
      pp_anon_sym_GT]),
     (pp_sym_preproc_include, [pp_aux_sym_preproc_include_token1, pp_sym_identifier]),
     (pp_sym_define, [pp_aux_sym_define_token1, pp_sym_identifier, pp_sym_preproc_line,
      pp_anon_sym_LF]),
     (pp_sym_define, [pp_aux_sym_define_token1, pp_sym_identifier, pp_aux_sym_define_repeat1,
      pp_sym_preproc_line, pp_anon_sym_LF]),
     (pp_sym_preproc_if, [pp_aux_sym_preproc_if_token1, pp_aux_sym_preproc_if_token2]),
     (pp_sym_preproc_if, [pp_aux_sym_preproc_if_token1, pp_sym_preproc_else,
      pp_aux_sym_preproc_if_token2]),
     (pp_sym_preproc_if, [pp_aux_sym_preproc_if_token1, pp_aux_sym_preproc_if_repeat1,
      pp_aux_sym_preproc_if_token2]),
     (pp_sym_preproc_if, [pp_aux_sym_preproc_if_token1, pp_aux_sym_preproc_if_repeat1,
      pp_sym_preproc_else, pp_aux_sym_preproc_if_token2]),
     (pp_sym_preproc_if, [pp_aux_sym_preproc_if_token1, pp_aux_sym_translation_unit_repeat1,
      pp_aux_sym_preproc_if_token2]),
     (pp_sym_preproc_if, [pp_aux_sym_preproc_if_token1, pp_aux_sym_translation_unit_repeat1,
      pp_sym_preproc_else, pp_aux_sym_preproc_if_token2]),
     (pp_sym_preproc_if, [pp_aux_sym_preproc_if_token1, pp_aux_sym_translation_unit_repeat1,
      pp_aux_sym_preproc_if_repeat1, pp_aux_sym_preproc_if_token2]),
     (pp_sym_preproc_if, [pp_aux_sym_preproc_if_token1, pp_aux_sym_translation_unit_repeat1,
      pp_aux_sym_preproc_if_repeat1, pp_sym_preproc_else, pp_aux_sym_preproc_if_token2]),
     (pp_aux_sym_preproc_if_repeat1, [pp_aux_sym_preproc_if_repeat1,
      pp_aux_sym_preproc_if_repeat1]),
     (pp_aux_sym_preproc_if_repeat1, [pp_sym_preproc_elif]),
     (pp_sym_preproc_elif, [pp_aux_sym_preproc_elif_token1]),
     (pp_sym_preproc_elif, [pp_aux_sym_preproc_elif_token1, pp_aux_sym_translation_unit_repeat1]),
     (pp_sym_preproc_else, [pp_aux_sym_preproc_else_token1]),
     (pp_sym_preproc_else, [pp_aux_sym_preproc_else_token1, pp_aux_sym_translation_unit_repeat1]),
     (pp_aux_sym_translation_unit_repeat1, [pp_aux_sym_translation_unit_repeat1,
      pp_aux_sym_translation_unit_repeat1]),
     (pp_aux_sym_translation_unit_repeat1, [pp_sym__top_level_item]),
     (pp_sym_undef, [pp_aux_sym_undef_token1, pp_sym_identifier, pp_sym_preproc_line,
      pp_anon_sym_LF]),
     (pp_sym_undef, [pp_aux_sym_undef_token1, pp_sym_identifier, pp_aux_sym_define_repeat1,
      pp_sym_preproc_line, pp_anon_sym_LF]),
     (pp_sym_preproc_nothing, [pp_aux_sym_preproc_nothing_token1, pp_sym_preproc_line]),
     (pp_sym_preproc_nothing, [pp_aux_sym_preproc_nothing_token1, pp_aux_sym_define_repeat1,
      pp_sym_preproc_line]),
     (pp_aux_sym_define_repeat1, [pp_aux_sym_define_repeat1, pp_aux_sym_define_repeat1]),
     (pp_aux_sym_define_repeat1, [pp_sym_preproc_continuation_line]),
     (pp_sym_string_literal, [pp_aux_sym_string_literal_token1]),
     (pp_sym_char_literal, [pp_aux_sym_char_literal_token1])]"
  by (simp add: pp_grammar_def pp_rules_def productions_def)

section \<open>The certificate\<close>

definition pp_incoming :: incoming where
  "pp_incoming =
    [(2, [(4, pp_aux_sym_translation_unit_repeat1)]),
     (3, [(2, pp_aux_sym_preproc_if_token1), (3, pp_aux_sym_preproc_if_token1), (4,
      pp_aux_sym_preproc_if_token1), (5, pp_aux_sym_preproc_if_token1), (6,
      pp_aux_sym_preproc_if_token1), (7, pp_aux_sym_preproc_if_token1), (8,
      pp_aux_sym_preproc_if_token1), (9, pp_aux_sym_preproc_if_token1), (10,
      pp_aux_sym_preproc_if_token1)]),
     (4, [(1, pp_aux_sym_preproc_if_token1), (12, pp_aux_sym_preproc_if_token1), (14,
      pp_aux_sym_preproc_if_token1)]),
     (5, [(3, pp_aux_sym_translation_unit_repeat1)]),
     (6, [(11, pp_aux_sym_preproc_if_token1), (13, pp_aux_sym_preproc_if_token1), (15,
      pp_aux_sym_preproc_if_token1)]),
     (7, [(6, pp_aux_sym_translation_unit_repeat1)]),
     (8, [(2, pp_aux_sym_translation_unit_repeat1), (5, pp_aux_sym_translation_unit_repeat1), (7,
      pp_aux_sym_translation_unit_repeat1), (8, pp_aux_sym_translation_unit_repeat1), (9,
      pp_aux_sym_translation_unit_repeat1)]),
     (9, [(10, pp_aux_sym_translation_unit_repeat1)]),
     (10, [(2, pp_aux_sym_preproc_elif_token1), (3, pp_aux_sym_preproc_elif_token1), (4,
      pp_aux_sym_preproc_elif_token1), (5, pp_aux_sym_preproc_elif_token1), (6,
      pp_aux_sym_preproc_elif_token1), (7, pp_aux_sym_preproc_elif_token1), (58,
      pp_aux_sym_preproc_elif_token1), (59, pp_aux_sym_preproc_elif_token1), (60,
      pp_aux_sym_preproc_elif_token1), (61, pp_aux_sym_preproc_elif_token1), (62,
      pp_aux_sym_preproc_elif_token1), (63, pp_aux_sym_preproc_elif_token1), (64,
      pp_aux_sym_preproc_elif_token1)]),
     (11, [(2, pp_aux_sym_preproc_else_token1), (3, pp_aux_sym_preproc_else_token1), (4,
      pp_aux_sym_preproc_else_token1), (5, pp_aux_sym_preproc_else_token1), (6,
      pp_aux_sym_preproc_else_token1), (7, pp_aux_sym_preproc_else_token1), (58,
      pp_aux_sym_preproc_else_token1), (59, pp_aux_sym_preproc_else_token1), (60,
      pp_aux_sym_preproc_else_token1), (61, pp_aux_sym_preproc_else_token1), (62,
      pp_aux_sym_preproc_else_token1), (63, pp_aux_sym_preproc_else_token1)]),
     (12, [(1, pp_aux_sym_translation_unit_repeat1)]),
     (13, [(11, pp_aux_sym_translation_unit_repeat1)]),
     (14, [(12, pp_aux_sym_translation_unit_repeat1), (14, pp_aux_sym_translation_unit_repeat1)]),
     (15, [(13, pp_aux_sym_translation_unit_repeat1), (15, pp_aux_sym_translation_unit_repeat1)]),
     (16, [(89, pp_aux_sym_preproc_if_token2)]),
     (17, [(90, pp_anon_sym_LF)]),
     (18, [(2, pp_aux_sym_string_literal_token1), (3, pp_aux_sym_string_literal_token1), (4,
      pp_aux_sym_string_literal_token1), (5, pp_aux_sym_string_literal_token1), (6,
      pp_aux_sym_string_literal_token1), (7, pp_aux_sym_string_literal_token1), (8,
      pp_aux_sym_string_literal_token1), (9, pp_aux_sym_string_literal_token1), (10,
      pp_aux_sym_string_literal_token1), (66, pp_aux_sym_string_literal_token1)]),
     (19, [(2, pp_aux_sym_char_literal_token1), (3, pp_aux_sym_char_literal_token1), (4,
      pp_aux_sym_char_literal_token1), (5, pp_aux_sym_char_literal_token1), (6,
      pp_aux_sym_char_literal_token1), (7, pp_aux_sym_char_literal_token1), (8,
      pp_aux_sym_char_literal_token1), (9, pp_aux_sym_char_literal_token1), (10,
      pp_aux_sym_char_literal_token1)]),
     (20, [(66, pp_sym_identifier), (66, pp_sym_string_literal)]),
     (21, [(3, pp_aux_sym_preproc_if_token2)]),
     (22, [(73, pp_sym_preproc_line)]),
     (23, [(5, pp_aux_sym_preproc_if_token2), (63, pp_aux_sym_preproc_if_token2), (101,
      pp_aux_sym_preproc_if_token2)]),
     (24, [(76, pp_sym_preproc_line)]),
     (25, [(112, pp_anon_sym_GT)]),
     (26, [(113, pp_anon_sym_LF)]),
     (27, [(61, pp_aux_sym_preproc_if_token2), (114, pp_aux_sym_preproc_if_token2)]),
     (28, [(103, pp_anon_sym_LF)]),
     (29, [(88, pp_anon_sym_LF)]),
     (30, [(104, pp_aux_sym_preproc_if_token2)]),
     (31, [(110, pp_anon_sym_LF)]),
     (32, [(86, pp_sym_preproc_line)]),
     (33, [(1, pp_aux_sym_string_literal_token1), (12, pp_aux_sym_string_literal_token1), (14,
      pp_aux_sym_string_literal_token1), (67, pp_aux_sym_string_literal_token1)]),
     (34, [(1, pp_aux_sym_char_literal_token1), (12, pp_aux_sym_char_literal_token1), (14,
      pp_aux_sym_char_literal_token1)]),
     (35, [(2, pp_aux_sym_preproc_if_token2), (59, pp_aux_sym_preproc_if_token2), (107,
      pp_aux_sym_preproc_if_token2)]),
     (36, [(75, pp_sym_preproc_line)]),
     (37, [(93, pp_anon_sym_GT)]),
     (38, [(97, pp_anon_sym_LF)]),
     (39, [(60, pp_aux_sym_preproc_if_token2), (109, pp_aux_sym_preproc_if_token2)]),
     (40, [(108, pp_anon_sym_LF)]),
     (41, [(96, pp_anon_sym_LF)]),
     (42, [(67, pp_sym_identifier), (67, pp_sym_string_literal)]),
     (43, [(102, pp_aux_sym_preproc_if_token2)]),
     (44, [(11, pp_aux_sym_string_literal_token1), (13, pp_aux_sym_string_literal_token1), (15,
      pp_aux_sym_string_literal_token1), (65, pp_aux_sym_string_literal_token1)]),
     (45, [(11, pp_aux_sym_char_literal_token1), (13, pp_aux_sym_char_literal_token1), (15,
      pp_aux_sym_char_literal_token1)]),
     (46, [(65, pp_sym_identifier), (65, pp_sym_string_literal)]),
     (47, [(6, pp_aux_sym_preproc_if_token2)]),
     (48, [(77, pp_sym_preproc_line)]),
     (49, [(7, pp_aux_sym_preproc_if_token2), (62, pp_aux_sym_preproc_if_token2), (94,
      pp_aux_sym_preproc_if_token2)]),
     (50, [(78, pp_sym_preproc_line)]),
     (51, [(98, pp_anon_sym_GT)]),
     (52, [(99, pp_anon_sym_LF)]),
     (53, [(58, pp_aux_sym_preproc_if_token2), (100, pp_aux_sym_preproc_if_token2)]),
     (54, [(87, pp_anon_sym_LF)]),
     (55, [(120, pp_anon_sym_LF)]),
     (56, [(105, pp_anon_sym_LF)]),
     (57, [(4, pp_aux_sym_preproc_if_token2)]),
     (58, [(7, pp_aux_sym_preproc_if_repeat1)]),
     (59, [(4, pp_aux_sym_preproc_if_repeat1)]),
     (60, [(2, pp_aux_sym_preproc_if_repeat1)]),
     (61, [(5, pp_aux_sym_preproc_if_repeat1)]),
     (62, [(6, pp_aux_sym_preproc_if_repeat1)]),
     (63, [(3, pp_aux_sym_preproc_if_repeat1)]),
     (64, [(58, pp_aux_sym_preproc_if_repeat1), (59, pp_aux_sym_preproc_if_repeat1), (60,
      pp_aux_sym_preproc_if_repeat1), (61, pp_aux_sym_preproc_if_repeat1), (62,
      pp_aux_sym_preproc_if_repeat1), (63, pp_aux_sym_preproc_if_repeat1), (64,
      pp_aux_sym_preproc_if_repeat1)]),
     (65, [(11, pp_aux_sym_preproc_include_token1), (13, pp_aux_sym_preproc_include_token1), (15,
      pp_aux_sym_preproc_include_token1)]),
     (66, [(2, pp_aux_sym_preproc_include_token1), (3, pp_aux_sym_preproc_include_token1), (4,
      pp_aux_sym_preproc_include_token1), (5, pp_aux_sym_preproc_include_token1), (6,
      pp_aux_sym_preproc_include_token1), (7, pp_aux_sym_preproc_include_token1), (8,
      pp_aux_sym_preproc_include_token1), (9, pp_aux_sym_preproc_include_token1), (10,
      pp_aux_sym_preproc_include_token1)]),
     (67, [(1, pp_aux_sym_preproc_include_token1), (12, pp_aux_sym_preproc_include_token1), (14,
      pp_aux_sym_preproc_include_token1)]),
     (68, [(116, pp_sym_identifier)]),
     (69, [(84, pp_aux_sym_define_repeat1)]),
     (70, [(79, pp_aux_sym_define_repeat1)]),
     (71, [(72, pp_aux_sym_define_repeat1)]),
     (72, [(91, pp_sym_identifier)]),
     (73, [(2, pp_aux_sym_preproc_nothing_token1), (3, pp_aux_sym_preproc_nothing_token1), (4,
      pp_aux_sym_preproc_nothing_token1), (5, pp_aux_sym_preproc_nothing_token1), (6,
      pp_aux_sym_preproc_nothing_token1), (7, pp_aux_sym_preproc_nothing_token1), (8,
      pp_aux_sym_preproc_nothing_token1), (9, pp_aux_sym_preproc_nothing_token1), (10,
      pp_aux_sym_preproc_nothing_token1)]),
     (74, [(69, pp_aux_sym_define_repeat1), (70, pp_aux_sym_define_repeat1), (71,
      pp_aux_sym_define_repeat1), (74, pp_aux_sym_define_repeat1), (75,
      pp_aux_sym_define_repeat1), (76, pp_aux_sym_define_repeat1), (78,
      pp_aux_sym_define_repeat1), (81, pp_aux_sym_define_repeat1), (82,
      pp_aux_sym_define_repeat1), (85, pp_aux_sym_define_repeat1)]),
     (75, [(86, pp_aux_sym_define_repeat1)]),
     (76, [(73, pp_aux_sym_define_repeat1)]),
     (77, [(11, pp_aux_sym_preproc_nothing_token1), (13, pp_aux_sym_preproc_nothing_token1), (15,
      pp_aux_sym_preproc_nothing_token1)]),
     (78, [(77, pp_aux_sym_define_repeat1)]),
     (79, [(95, pp_sym_identifier)]),
     (80, [(117, pp_sym_identifier)]),
     (81, [(68, pp_aux_sym_define_repeat1)]),
     (82, [(80, pp_aux_sym_define_repeat1)]),
     (83, [(118, pp_sym_identifier)]),
     (84, [(119, pp_sym_identifier)]),
     (85, [(83, pp_aux_sym_define_repeat1)]),
     (86, [(1, pp_aux_sym_preproc_nothing_token1), (12, pp_aux_sym_preproc_nothing_token1), (14,
      pp_aux_sym_preproc_nothing_token1)]),
     (87, [(84, pp_sym_preproc_line)]),
     (88, [(81, pp_sym_preproc_line)]),
     (89, [(61, pp_sym_preproc_else)]),
     (90, [(82, pp_sym_preproc_line)]),
     (91, [(1, pp_aux_sym_define_token1), (12, pp_aux_sym_define_token1), (14,
      pp_aux_sym_define_token1)]),
     (92, [(67, pp_anon_sym_LT)]),
     (93, [(92, pp_sym_path)]),
     (94, [(6, pp_sym_preproc_else)]),
     (95, [(1, pp_aux_sym_undef_token1), (12, pp_aux_sym_undef_token1), (14,
      pp_aux_sym_undef_token1)]),
     (96, [(71, pp_sym_preproc_line)]),
     (97, [(72, pp_sym_preproc_line)]),
     (98, [(111, pp_sym_path)]),
     (99, [(83, pp_sym_preproc_line)]),
     (100, [(7, pp_sym_preproc_else), (62, pp_sym_preproc_else)]),
     (101, [(3, pp_sym_preproc_else)]),
     (102, [(60, pp_sym_preproc_else)]),
     (103, [(80, pp_sym_preproc_line)]),
     (104, [(58, pp_sym_preproc_else)]),
     (105, [(69, pp_sym_preproc_line)]),
     (106, [(66, pp_anon_sym_LT)]),
     (107, [(4, pp_sym_preproc_else)]),
     (108, [(79, pp_sym_preproc_line)]),
     (109, [(2, pp_sym_preproc_else), (59, pp_sym_preproc_else)]),
     (110, [(70, pp_sym_preproc_line)]),
     (111, [(65, pp_anon_sym_LT)]),
     (112, [(106, pp_sym_path)]),
     (113, [(68, pp_sym_preproc_line)]),
     (114, [(5, pp_sym_preproc_else), (63, pp_sym_preproc_else)]),
     (115, [(1, pp_sym_translation_unit)]),
     (116, [(2, pp_aux_sym_define_token1), (3, pp_aux_sym_define_token1), (4,
      pp_aux_sym_define_token1), (5, pp_aux_sym_define_token1), (6, pp_aux_sym_define_token1), (7,
      pp_aux_sym_define_token1), (8, pp_aux_sym_define_token1), (9, pp_aux_sym_define_token1),
      (10, pp_aux_sym_define_token1)]),
     (117, [(2, pp_aux_sym_undef_token1), (3, pp_aux_sym_undef_token1), (4,
      pp_aux_sym_undef_token1), (5, pp_aux_sym_undef_token1), (6, pp_aux_sym_undef_token1), (7,
      pp_aux_sym_undef_token1), (8, pp_aux_sym_undef_token1), (9, pp_aux_sym_undef_token1), (10,
      pp_aux_sym_undef_token1)]),
     (118, [(11, pp_aux_sym_define_token1), (13, pp_aux_sym_define_token1), (15,
      pp_aux_sym_define_token1)]),
     (119, [(11, pp_aux_sym_undef_token1), (13, pp_aux_sym_undef_token1), (15,
      pp_aux_sym_undef_token1)]),
     (120, [(85, pp_sym_preproc_line)])]"

definition pp_reductions :: "(TSStateId \<times> TSSymbol \<times> nat) list" where
  "pp_reductions =
    [(1, pp_sym_translation_unit, 0),
     (8, pp_aux_sym_translation_unit_repeat1, 2),
     (9, pp_sym_preproc_elif, 2),
     (10, pp_sym_preproc_elif, 1),
     (11, pp_sym_preproc_else, 1),
     (12, pp_sym_translation_unit, 1),
     (13, pp_sym_preproc_else, 2),
     (14, pp_aux_sym_translation_unit_repeat1, 2),
     (15, pp_aux_sym_translation_unit_repeat1, 2),
     (16, pp_sym_preproc_if, 5),
     (17, pp_sym_undef, 5),
     (18, pp_sym_string_literal, 1),
     (19, pp_sym_char_literal, 1),
     (20, pp_sym_preproc_include, 2),
     (21, pp_sym_preproc_if, 2),
     (22, pp_sym_preproc_nothing, 2),
     (23, pp_sym_preproc_if, 3),
     (24, pp_sym_preproc_nothing, 3),
     (25, pp_sym_preproc_include, 4),
     (26, pp_sym_define, 4),
     (27, pp_sym_preproc_if, 4),
     (28, pp_sym_undef, 4),
     (29, pp_sym_define, 5),
     (30, pp_sym_preproc_if, 5),
     (31, pp_sym_undef, 5),
     (32, pp_sym_preproc_nothing, 2),
     (33, pp_sym_string_literal, 1),
     (34, pp_sym_char_literal, 1),
     (35, pp_sym_preproc_if, 3),
     (36, pp_sym_preproc_nothing, 3),
     (37, pp_sym_preproc_include, 4),
     (38, pp_sym_define, 4),
     (39, pp_sym_preproc_if, 4),
     (40, pp_sym_undef, 4),
     (41, pp_sym_define, 5),
     (42, pp_sym_preproc_include, 2),
     (43, pp_sym_preproc_if, 5),
     (44, pp_sym_string_literal, 1),
     (45, pp_sym_char_literal, 1),
     (46, pp_sym_preproc_include, 2),
     (47, pp_sym_preproc_if, 2),
     (48, pp_sym_preproc_nothing, 2),
     (49, pp_sym_preproc_if, 3),
     (50, pp_sym_preproc_nothing, 3),
     (51, pp_sym_preproc_include, 4),
     (52, pp_sym_define, 4),
     (53, pp_sym_preproc_if, 4),
     (54, pp_sym_undef, 4),
     (55, pp_sym_define, 5),
     (56, pp_sym_undef, 5),
     (57, pp_sym_preproc_if, 2),
     (64, pp_aux_sym_preproc_if_repeat1, 2),
     (74, pp_aux_sym_define_repeat1, 2)]"

section \<open>The initialisers\<close>

lemmas pp_table_defs =
  pp_ts_parse_table_def pp_parse_row_0_def pp_parse_row_1_def pp_parse_row_2_def
  pp_parse_row_3_def pp_parse_row_4_def pp_parse_row_5_def pp_parse_row_6_def pp_parse_row_7_def
  pp_parse_row_8_def pp_parse_row_9_def pp_parse_row_10_def pp_parse_row_11_def
  pp_parse_row_12_def pp_parse_row_13_def pp_parse_row_14_def pp_parse_row_15_def

lemmas pp_run_defs =
  pp_small_run_0_def pp_small_run_19_def pp_small_run_38_def pp_small_run_57_def
  pp_small_run_76_def pp_small_run_95_def pp_small_run_114_def pp_small_run_133_def
  pp_small_run_152_def pp_small_run_171_def pp_small_run_190_def pp_small_run_209_def
  pp_small_run_228_def pp_small_run_247_def pp_small_run_266_def pp_small_run_283_def
  pp_small_run_300_def pp_small_run_317_def pp_small_run_334_def pp_small_run_351_def
  pp_small_run_368_def pp_small_run_385_def pp_small_run_402_def pp_small_run_419_def
  pp_small_run_436_def pp_small_run_453_def pp_small_run_470_def pp_small_run_487_def
  pp_small_run_504_def pp_small_run_521_def pp_small_run_538_def pp_small_run_555_def
  pp_small_run_572_def pp_small_run_589_def pp_small_run_606_def pp_small_run_623_def
  pp_small_run_640_def pp_small_run_657_def pp_small_run_674_def pp_small_run_691_def
  pp_small_run_708_def pp_small_run_725_def pp_small_run_742_def pp_small_run_759_def
  pp_small_run_776_def pp_small_run_793_def pp_small_run_810_def pp_small_run_827_def
  pp_small_run_844_def pp_small_run_856_def pp_small_run_869_def pp_small_run_882_def
  pp_small_run_895_def pp_small_run_905_def pp_small_run_915_def pp_small_run_925_def
  pp_small_run_935_def pp_small_run_945_def pp_small_run_955_def pp_small_run_965_def
  pp_small_run_975_def pp_small_run_985_def pp_small_run_995_def pp_small_run_1005_def
  pp_small_run_1015_def pp_small_run_1025_def pp_small_run_1035_def pp_small_run_1045_def
  pp_small_run_1055_def pp_small_run_1065_def pp_small_run_1075_def pp_small_run_1085_def
  pp_small_run_1089_def pp_small_run_1093_def pp_small_run_1097_def pp_small_run_1101_def
  pp_small_run_1105_def pp_small_run_1109_def pp_small_run_1113_def pp_small_run_1117_def
  pp_small_run_1121_def pp_small_run_1125_def pp_small_run_1129_def pp_small_run_1133_def
  pp_small_run_1137_def pp_small_run_1141_def pp_small_run_1145_def pp_small_run_1149_def
  pp_small_run_1153_def pp_small_run_1157_def pp_small_run_1161_def pp_small_run_1165_def
  pp_small_run_1169_def pp_small_run_1173_def pp_small_run_1177_def pp_small_run_1181_def
  pp_small_run_1185_def pp_small_run_1189_def pp_small_run_1193_def pp_small_run_1197_def
  pp_small_run_1201_def pp_small_run_1205_def pp_small_run_1209_def pp_small_run_1213_def
  pp_small_run_1217_def

lemmas pp_action_defs =
  pp_parse_actions_0_def pp_parse_actions_1_def pp_parse_actions_2_def pp_parse_actions_3_def

lemma pp_sizes:
  "symbol_count tree_sitter_preproc = pp_SYMBOL_COUNT" "token_count tree_sitter_preproc = pp_TOKEN_COUNT"
  "state_count tree_sitter_preproc = pp_STATE_COUNT" "large_state_count tree_sitter_preproc = pp_LARGE_STATE_COUNT"
  "production_id_count tree_sitter_preproc = pp_PRODUCTION_ID_COUNT"
  by (simp_all add: tree_sitter_preproc_def)

lemmas pp_runs_eq = pp_ts_small_parse_table_def [unfolded pp_run_defs]

lemmas pp_actions_eq = pp_ts_parse_actions_def [unfolded pp_action_defs action_macros append.simps]

lemma pp_runs_contiguous: "contiguous 0 pp_ts_small_parse_table"
  by (simp add: pp_runs_eq)

lemma pp_actions_contiguous: "contiguous 0 pp_ts_parse_actions"
  by (simp add: pp_actions_eq)

lemma pp_map_states: "map fst pp_ts_small_parse_table_map = [0..<pp_STATE_COUNT - pp_LARGE_STATE_COUNT]"
  by (simp add: pp_ts_small_parse_table_map_def SMALL_STATE_def upt_rec)

interpretation pp_init: table_initialisers tree_sitter_preproc pp_ts_parse_table pp_ts_small_parse_table_map
    pp_ts_small_parse_table pp_ts_parse_actions
  by unfold_locales
    (simp_all add: tree_sitter_preproc_def pp_runs_contiguous pp_actions_contiguous pp_map_states,
     simp add: pp_actions_eq)


lemma pp_unit_facts:
  "unit_ok pp_grammar (Suc 0) (Suc 0) = True"
  "unit_ok pp_grammar (Suc 0) 31 = False"
  "unit_ok pp_grammar 4 4 = True"
  "unit_ok pp_grammar 5 5 = True"
  "unit_ok pp_grammar 6 6 = True"
  "unit_ok pp_grammar 7 7 = True"
  "unit_ok pp_grammar 8 8 = True"
  "unit_ok pp_grammar 9 9 = True"
  "unit_ok pp_grammar 10 10 = True"
  "unit_ok pp_grammar 11 11 = True"
  "unit_ok pp_grammar 12 12 = True"
  "unit_ok pp_grammar 13 13 = True"
  "unit_ok pp_grammar 14 14 = True"
  "unit_ok pp_grammar 15 15 = True"
  "unit_ok pp_grammar 16 16 = True"
  "unit_ok pp_grammar 17 17 = True"
  "unit_ok pp_grammar 18 18 = True"
  "unit_ok pp_grammar 22 22 = True"
  "unit_ok pp_grammar 28 28 = True"
  "unit_ok pp_grammar 31 (Suc 0) = False"
  "unit_ok pp_grammar 31 31 = True"
  "unit_ok pp_grammar 33 2 = True"
  "unit_ok pp_grammar 33 19 = True"
  "unit_ok pp_grammar 33 20 = True"
  "unit_ok pp_grammar 33 21 = True"
  "unit_ok pp_grammar 33 23 = True"
  "unit_ok pp_grammar 33 24 = True"
  "unit_ok pp_grammar 33 25 = True"
  "unit_ok pp_grammar 33 26 = True"
  "unit_ok pp_grammar 33 29 = True"
  "unit_ok pp_grammar 33 30 = True"
  "unit_ok pp_grammar 33 31 = True"
  "unit_ok pp_grammar 33 32 = True"
  "unit_ok pp_grammar 33 33 = True"
  "unit_ok pp_grammar 34 3 = True"
  "unit_ok pp_grammar 34 34 = True"
  "unit_ok pp_grammar 35 27 = True"
  "unit_ok pp_grammar 35 35 = True"
  by (simp_all add: pp_grammar_eq unit_depth_def unit_derives_numeral)

lemma pp_cover_facts:
  "covers pp_grammar 22 []"
  "covers pp_grammar 22 [33]"
  "covers pp_grammar 24 [5, Suc 0]"
  "covers pp_grammar 24 [5, 6, 8, 7]"
  "covers pp_grammar 24 [5, 31]"
  "covers pp_grammar 25 [9, Suc 0, 4, 10]"
  "covers pp_grammar 25 [9, Suc 0, 34, 4, 10]"
  "covers pp_grammar 26 [11, 12]"
  "covers pp_grammar 26 [11, 28, 12]"
  "covers pp_grammar 26 [11, 33, 12]"
  "covers pp_grammar 26 [11, 33, 28, 12]"
  "covers pp_grammar 26 [11, 33, 35, 12]"
  "covers pp_grammar 26 [11, 33, 35, 28, 12]"
  "covers pp_grammar 26 [11, 35, 12]"
  "covers pp_grammar 26 [11, 35, 28, 12]"
  "covers pp_grammar 27 [13]"
  "covers pp_grammar 27 [13, 33]"
  "covers pp_grammar 28 [14]"
  "covers pp_grammar 28 [14, 33]"
  "covers pp_grammar 29 [15, Suc 0, 4, 10]"
  "covers pp_grammar 29 [15, Suc 0, 34, 4, 10]"
  "covers pp_grammar 30 [16, 4]"
  "covers pp_grammar 30 [16, 34, 4]"
  "covers pp_grammar 31 [17]"
  "covers pp_grammar 32 [18]"
  "covers pp_grammar 33 [33, 33]"
  "covers pp_grammar 34 [34, 34]"
  "covers pp_grammar 35 [35, 35]"
  by (simp_all add: pp_grammar_eq covers_def unit_depth_def unit_derives_numeral)

lemmas pp_action_facts =
  array_of_entries [OF pp_actions_eq conjunct1 [OF contiguous_keys [OF pp_actions_contiguous [unfolded pp_actions_eq]]],
    of "[]", simplified]

lemmas pp_run_facts =
  run_entries_entries [OF pp_runs_eq pp_runs_contiguous [unfolded pp_runs_eq], simplified]

lemma pp_incoming_keys: "distinct (map fst pp_incoming)"
  by (simp add: pp_incoming_def)

lemmas pp_incoming_facts =
  array_of_entries [OF pp_incoming_def pp_incoming_keys [unfolded pp_incoming_def], of "[]", simplified]

lemmas pp_reduction_facts = member_entries [OF pp_reductions_def, simplified]

lemmas pp_check_simps =
  check_simps pp_unit_facts pp_cover_facts pp_action_facts pp_run_facts pp_incoming_facts pp_reduction_facts

lemmas pp_map_facts =
  array_of_entries [OF pp_ts_small_parse_table_map_def
    distinct_map_fst [OF pp_map_states, unfolded pp_ts_small_parse_table_map_def], of 0, simplified SMALL_STATE_def, simplified]

lemma pp_goto_facts:
  "has_entry pp_ts_parse_table pp_LARGE_STATE_COUNT pp_ts_small_parse_table_map pp_ts_small_parse_table (Suc 0) 22"
  "has_entry pp_ts_parse_table pp_LARGE_STATE_COUNT pp_ts_small_parse_table_map pp_ts_small_parse_table (Suc 0) 24"
  "has_entry pp_ts_parse_table pp_LARGE_STATE_COUNT pp_ts_small_parse_table_map pp_ts_small_parse_table (Suc 0) 25"
  "has_entry pp_ts_parse_table pp_LARGE_STATE_COUNT pp_ts_small_parse_table_map pp_ts_small_parse_table (Suc 0) 26"
  "has_entry pp_ts_parse_table pp_LARGE_STATE_COUNT pp_ts_small_parse_table_map pp_ts_small_parse_table (Suc 0) 29"
  "has_entry pp_ts_parse_table pp_LARGE_STATE_COUNT pp_ts_small_parse_table_map pp_ts_small_parse_table (Suc 0) 30"
  "has_entry pp_ts_parse_table pp_LARGE_STATE_COUNT pp_ts_small_parse_table_map pp_ts_small_parse_table (Suc 0) 31"
  "has_entry pp_ts_parse_table pp_LARGE_STATE_COUNT pp_ts_small_parse_table_map pp_ts_small_parse_table (Suc 0) 32"
  "has_entry pp_ts_parse_table pp_LARGE_STATE_COUNT pp_ts_small_parse_table_map pp_ts_small_parse_table (Suc 0) 33"
  "has_entry pp_ts_parse_table pp_LARGE_STATE_COUNT pp_ts_small_parse_table_map pp_ts_small_parse_table 2 24"
  "has_entry pp_ts_parse_table pp_LARGE_STATE_COUNT pp_ts_small_parse_table_map pp_ts_small_parse_table 2 25"
  "has_entry pp_ts_parse_table pp_LARGE_STATE_COUNT pp_ts_small_parse_table_map pp_ts_small_parse_table 2 26"
  "has_entry pp_ts_parse_table pp_LARGE_STATE_COUNT pp_ts_small_parse_table_map pp_ts_small_parse_table 2 27"
  "has_entry pp_ts_parse_table pp_LARGE_STATE_COUNT pp_ts_small_parse_table_map pp_ts_small_parse_table 2 28"
  "has_entry pp_ts_parse_table pp_LARGE_STATE_COUNT pp_ts_small_parse_table_map pp_ts_small_parse_table 2 29"
  "has_entry pp_ts_parse_table pp_LARGE_STATE_COUNT pp_ts_small_parse_table_map pp_ts_small_parse_table 2 30"
  "has_entry pp_ts_parse_table pp_LARGE_STATE_COUNT pp_ts_small_parse_table_map pp_ts_small_parse_table 2 31"
  "has_entry pp_ts_parse_table pp_LARGE_STATE_COUNT pp_ts_small_parse_table_map pp_ts_small_parse_table 2 32"
  "has_entry pp_ts_parse_table pp_LARGE_STATE_COUNT pp_ts_small_parse_table_map pp_ts_small_parse_table 2 33"
  "has_entry pp_ts_parse_table pp_LARGE_STATE_COUNT pp_ts_small_parse_table_map pp_ts_small_parse_table 2 35"
  "has_entry pp_ts_parse_table pp_LARGE_STATE_COUNT pp_ts_small_parse_table_map pp_ts_small_parse_table 3 24"
  "has_entry pp_ts_parse_table pp_LARGE_STATE_COUNT pp_ts_small_parse_table_map pp_ts_small_parse_table 3 25"
  "has_entry pp_ts_parse_table pp_LARGE_STATE_COUNT pp_ts_small_parse_table_map pp_ts_small_parse_table 3 26"
  "has_entry pp_ts_parse_table pp_LARGE_STATE_COUNT pp_ts_small_parse_table_map pp_ts_small_parse_table 3 27"
  "has_entry pp_ts_parse_table pp_LARGE_STATE_COUNT pp_ts_small_parse_table_map pp_ts_small_parse_table 3 28"
  "has_entry pp_ts_parse_table pp_LARGE_STATE_COUNT pp_ts_small_parse_table_map pp_ts_small_parse_table 3 29"
  "has_entry pp_ts_parse_table pp_LARGE_STATE_COUNT pp_ts_small_parse_table_map pp_ts_small_parse_table 3 30"
  "has_entry pp_ts_parse_table pp_LARGE_STATE_COUNT pp_ts_small_parse_table_map pp_ts_small_parse_table 3 31"
  "has_entry pp_ts_parse_table pp_LARGE_STATE_COUNT pp_ts_small_parse_table_map pp_ts_small_parse_table 3 32"
  "has_entry pp_ts_parse_table pp_LARGE_STATE_COUNT pp_ts_small_parse_table_map pp_ts_small_parse_table 3 33"
  "has_entry pp_ts_parse_table pp_LARGE_STATE_COUNT pp_ts_small_parse_table_map pp_ts_small_parse_table 3 35"
  "has_entry pp_ts_parse_table pp_LARGE_STATE_COUNT pp_ts_small_parse_table_map pp_ts_small_parse_table 4 24"
  "has_entry pp_ts_parse_table pp_LARGE_STATE_COUNT pp_ts_small_parse_table_map pp_ts_small_parse_table 4 25"
  "has_entry pp_ts_parse_table pp_LARGE_STATE_COUNT pp_ts_small_parse_table_map pp_ts_small_parse_table 4 26"
  "has_entry pp_ts_parse_table pp_LARGE_STATE_COUNT pp_ts_small_parse_table_map pp_ts_small_parse_table 4 27"
  "has_entry pp_ts_parse_table pp_LARGE_STATE_COUNT pp_ts_small_parse_table_map pp_ts_small_parse_table 4 28"
  "has_entry pp_ts_parse_table pp_LARGE_STATE_COUNT pp_ts_small_parse_table_map pp_ts_small_parse_table 4 29"
  "has_entry pp_ts_parse_table pp_LARGE_STATE_COUNT pp_ts_small_parse_table_map pp_ts_small_parse_table 4 30"
  "has_entry pp_ts_parse_table pp_LARGE_STATE_COUNT pp_ts_small_parse_table_map pp_ts_small_parse_table 4 31"
  "has_entry pp_ts_parse_table pp_LARGE_STATE_COUNT pp_ts_small_parse_table_map pp_ts_small_parse_table 4 32"
  "has_entry pp_ts_parse_table pp_LARGE_STATE_COUNT pp_ts_small_parse_table_map pp_ts_small_parse_table 4 33"
  "has_entry pp_ts_parse_table pp_LARGE_STATE_COUNT pp_ts_small_parse_table_map pp_ts_small_parse_table 4 35"
  "has_entry pp_ts_parse_table pp_LARGE_STATE_COUNT pp_ts_small_parse_table_map pp_ts_small_parse_table 5 24"
  "has_entry pp_ts_parse_table pp_LARGE_STATE_COUNT pp_ts_small_parse_table_map pp_ts_small_parse_table 5 25"
  "has_entry pp_ts_parse_table pp_LARGE_STATE_COUNT pp_ts_small_parse_table_map pp_ts_small_parse_table 5 26"
  "has_entry pp_ts_parse_table pp_LARGE_STATE_COUNT pp_ts_small_parse_table_map pp_ts_small_parse_table 5 27"
  "has_entry pp_ts_parse_table pp_LARGE_STATE_COUNT pp_ts_small_parse_table_map pp_ts_small_parse_table 5 28"
  "has_entry pp_ts_parse_table pp_LARGE_STATE_COUNT pp_ts_small_parse_table_map pp_ts_small_parse_table 5 29"
  "has_entry pp_ts_parse_table pp_LARGE_STATE_COUNT pp_ts_small_parse_table_map pp_ts_small_parse_table 5 30"
  "has_entry pp_ts_parse_table pp_LARGE_STATE_COUNT pp_ts_small_parse_table_map pp_ts_small_parse_table 5 31"
  "has_entry pp_ts_parse_table pp_LARGE_STATE_COUNT pp_ts_small_parse_table_map pp_ts_small_parse_table 5 32"
  "has_entry pp_ts_parse_table pp_LARGE_STATE_COUNT pp_ts_small_parse_table_map pp_ts_small_parse_table 5 33"
  "has_entry pp_ts_parse_table pp_LARGE_STATE_COUNT pp_ts_small_parse_table_map pp_ts_small_parse_table 5 35"
  "has_entry pp_ts_parse_table pp_LARGE_STATE_COUNT pp_ts_small_parse_table_map pp_ts_small_parse_table 6 24"
  "has_entry pp_ts_parse_table pp_LARGE_STATE_COUNT pp_ts_small_parse_table_map pp_ts_small_parse_table 6 25"
  "has_entry pp_ts_parse_table pp_LARGE_STATE_COUNT pp_ts_small_parse_table_map pp_ts_small_parse_table 6 26"
  "has_entry pp_ts_parse_table pp_LARGE_STATE_COUNT pp_ts_small_parse_table_map pp_ts_small_parse_table 6 27"
  "has_entry pp_ts_parse_table pp_LARGE_STATE_COUNT pp_ts_small_parse_table_map pp_ts_small_parse_table 6 28"
  "has_entry pp_ts_parse_table pp_LARGE_STATE_COUNT pp_ts_small_parse_table_map pp_ts_small_parse_table 6 29"
  "has_entry pp_ts_parse_table pp_LARGE_STATE_COUNT pp_ts_small_parse_table_map pp_ts_small_parse_table 6 30"
  "has_entry pp_ts_parse_table pp_LARGE_STATE_COUNT pp_ts_small_parse_table_map pp_ts_small_parse_table 6 31"
  "has_entry pp_ts_parse_table pp_LARGE_STATE_COUNT pp_ts_small_parse_table_map pp_ts_small_parse_table 6 32"
  "has_entry pp_ts_parse_table pp_LARGE_STATE_COUNT pp_ts_small_parse_table_map pp_ts_small_parse_table 6 33"
  "has_entry pp_ts_parse_table pp_LARGE_STATE_COUNT pp_ts_small_parse_table_map pp_ts_small_parse_table 6 35"
  "has_entry pp_ts_parse_table pp_LARGE_STATE_COUNT pp_ts_small_parse_table_map pp_ts_small_parse_table 7 24"
  "has_entry pp_ts_parse_table pp_LARGE_STATE_COUNT pp_ts_small_parse_table_map pp_ts_small_parse_table 7 25"
  "has_entry pp_ts_parse_table pp_LARGE_STATE_COUNT pp_ts_small_parse_table_map pp_ts_small_parse_table 7 26"
  "has_entry pp_ts_parse_table pp_LARGE_STATE_COUNT pp_ts_small_parse_table_map pp_ts_small_parse_table 7 27"
  "has_entry pp_ts_parse_table pp_LARGE_STATE_COUNT pp_ts_small_parse_table_map pp_ts_small_parse_table 7 28"
  "has_entry pp_ts_parse_table pp_LARGE_STATE_COUNT pp_ts_small_parse_table_map pp_ts_small_parse_table 7 29"
  "has_entry pp_ts_parse_table pp_LARGE_STATE_COUNT pp_ts_small_parse_table_map pp_ts_small_parse_table 7 30"
  "has_entry pp_ts_parse_table pp_LARGE_STATE_COUNT pp_ts_small_parse_table_map pp_ts_small_parse_table 7 31"
  "has_entry pp_ts_parse_table pp_LARGE_STATE_COUNT pp_ts_small_parse_table_map pp_ts_small_parse_table 7 32"
  "has_entry pp_ts_parse_table pp_LARGE_STATE_COUNT pp_ts_small_parse_table_map pp_ts_small_parse_table 7 33"
  "has_entry pp_ts_parse_table pp_LARGE_STATE_COUNT pp_ts_small_parse_table_map pp_ts_small_parse_table 7 35"
  "has_entry pp_ts_parse_table pp_LARGE_STATE_COUNT pp_ts_small_parse_table_map pp_ts_small_parse_table 8 24"
  "has_entry pp_ts_parse_table pp_LARGE_STATE_COUNT pp_ts_small_parse_table_map pp_ts_small_parse_table 8 25"
  "has_entry pp_ts_parse_table pp_LARGE_STATE_COUNT pp_ts_small_parse_table_map pp_ts_small_parse_table 8 26"
  "has_entry pp_ts_parse_table pp_LARGE_STATE_COUNT pp_ts_small_parse_table_map pp_ts_small_parse_table 8 29"
  "has_entry pp_ts_parse_table pp_LARGE_STATE_COUNT pp_ts_small_parse_table_map pp_ts_small_parse_table 8 30"
  "has_entry pp_ts_parse_table pp_LARGE_STATE_COUNT pp_ts_small_parse_table_map pp_ts_small_parse_table 8 31"
  "has_entry pp_ts_parse_table pp_LARGE_STATE_COUNT pp_ts_small_parse_table_map pp_ts_small_parse_table 8 32"
  "has_entry pp_ts_parse_table pp_LARGE_STATE_COUNT pp_ts_small_parse_table_map pp_ts_small_parse_table 8 33"
  "has_entry pp_ts_parse_table pp_LARGE_STATE_COUNT pp_ts_small_parse_table_map pp_ts_small_parse_table 9 24"
  "has_entry pp_ts_parse_table pp_LARGE_STATE_COUNT pp_ts_small_parse_table_map pp_ts_small_parse_table 9 25"
  "has_entry pp_ts_parse_table pp_LARGE_STATE_COUNT pp_ts_small_parse_table_map pp_ts_small_parse_table 9 26"
  "has_entry pp_ts_parse_table pp_LARGE_STATE_COUNT pp_ts_small_parse_table_map pp_ts_small_parse_table 9 29"
  "has_entry pp_ts_parse_table pp_LARGE_STATE_COUNT pp_ts_small_parse_table_map pp_ts_small_parse_table 9 30"
  "has_entry pp_ts_parse_table pp_LARGE_STATE_COUNT pp_ts_small_parse_table_map pp_ts_small_parse_table 9 31"
  "has_entry pp_ts_parse_table pp_LARGE_STATE_COUNT pp_ts_small_parse_table_map pp_ts_small_parse_table 9 32"
  "has_entry pp_ts_parse_table pp_LARGE_STATE_COUNT pp_ts_small_parse_table_map pp_ts_small_parse_table 9 33"
  "has_entry pp_ts_parse_table pp_LARGE_STATE_COUNT pp_ts_small_parse_table_map pp_ts_small_parse_table 10 24"
  "has_entry pp_ts_parse_table pp_LARGE_STATE_COUNT pp_ts_small_parse_table_map pp_ts_small_parse_table 10 25"
  "has_entry pp_ts_parse_table pp_LARGE_STATE_COUNT pp_ts_small_parse_table_map pp_ts_small_parse_table 10 26"
  "has_entry pp_ts_parse_table pp_LARGE_STATE_COUNT pp_ts_small_parse_table_map pp_ts_small_parse_table 10 29"
  "has_entry pp_ts_parse_table pp_LARGE_STATE_COUNT pp_ts_small_parse_table_map pp_ts_small_parse_table 10 30"
  "has_entry pp_ts_parse_table pp_LARGE_STATE_COUNT pp_ts_small_parse_table_map pp_ts_small_parse_table 10 31"
  "has_entry pp_ts_parse_table pp_LARGE_STATE_COUNT pp_ts_small_parse_table_map pp_ts_small_parse_table 10 32"
  "has_entry pp_ts_parse_table pp_LARGE_STATE_COUNT pp_ts_small_parse_table_map pp_ts_small_parse_table 10 33"
  "has_entry pp_ts_parse_table pp_LARGE_STATE_COUNT pp_ts_small_parse_table_map pp_ts_small_parse_table 11 24"
  "has_entry pp_ts_parse_table pp_LARGE_STATE_COUNT pp_ts_small_parse_table_map pp_ts_small_parse_table 11 25"
  "has_entry pp_ts_parse_table pp_LARGE_STATE_COUNT pp_ts_small_parse_table_map pp_ts_small_parse_table 11 26"
  "has_entry pp_ts_parse_table pp_LARGE_STATE_COUNT pp_ts_small_parse_table_map pp_ts_small_parse_table 11 29"
  "has_entry pp_ts_parse_table pp_LARGE_STATE_COUNT pp_ts_small_parse_table_map pp_ts_small_parse_table 11 30"
  "has_entry pp_ts_parse_table pp_LARGE_STATE_COUNT pp_ts_small_parse_table_map pp_ts_small_parse_table 11 31"
  "has_entry pp_ts_parse_table pp_LARGE_STATE_COUNT pp_ts_small_parse_table_map pp_ts_small_parse_table 11 32"
  "has_entry pp_ts_parse_table pp_LARGE_STATE_COUNT pp_ts_small_parse_table_map pp_ts_small_parse_table 11 33"
  "has_entry pp_ts_parse_table pp_LARGE_STATE_COUNT pp_ts_small_parse_table_map pp_ts_small_parse_table 12 24"
  "has_entry pp_ts_parse_table pp_LARGE_STATE_COUNT pp_ts_small_parse_table_map pp_ts_small_parse_table 12 25"
  "has_entry pp_ts_parse_table pp_LARGE_STATE_COUNT pp_ts_small_parse_table_map pp_ts_small_parse_table 12 26"
  "has_entry pp_ts_parse_table pp_LARGE_STATE_COUNT pp_ts_small_parse_table_map pp_ts_small_parse_table 12 29"
  "has_entry pp_ts_parse_table pp_LARGE_STATE_COUNT pp_ts_small_parse_table_map pp_ts_small_parse_table 12 30"
  "has_entry pp_ts_parse_table pp_LARGE_STATE_COUNT pp_ts_small_parse_table_map pp_ts_small_parse_table 12 31"
  "has_entry pp_ts_parse_table pp_LARGE_STATE_COUNT pp_ts_small_parse_table_map pp_ts_small_parse_table 12 32"
  "has_entry pp_ts_parse_table pp_LARGE_STATE_COUNT pp_ts_small_parse_table_map pp_ts_small_parse_table 12 33"
  "has_entry pp_ts_parse_table pp_LARGE_STATE_COUNT pp_ts_small_parse_table_map pp_ts_small_parse_table 13 24"
  "has_entry pp_ts_parse_table pp_LARGE_STATE_COUNT pp_ts_small_parse_table_map pp_ts_small_parse_table 13 25"
  "has_entry pp_ts_parse_table pp_LARGE_STATE_COUNT pp_ts_small_parse_table_map pp_ts_small_parse_table 13 26"
  "has_entry pp_ts_parse_table pp_LARGE_STATE_COUNT pp_ts_small_parse_table_map pp_ts_small_parse_table 13 29"
  "has_entry pp_ts_parse_table pp_LARGE_STATE_COUNT pp_ts_small_parse_table_map pp_ts_small_parse_table 13 30"
  "has_entry pp_ts_parse_table pp_LARGE_STATE_COUNT pp_ts_small_parse_table_map pp_ts_small_parse_table 13 31"
  "has_entry pp_ts_parse_table pp_LARGE_STATE_COUNT pp_ts_small_parse_table_map pp_ts_small_parse_table 13 32"
  "has_entry pp_ts_parse_table pp_LARGE_STATE_COUNT pp_ts_small_parse_table_map pp_ts_small_parse_table 13 33"
  "has_entry pp_ts_parse_table pp_LARGE_STATE_COUNT pp_ts_small_parse_table_map pp_ts_small_parse_table 14 24"
  "has_entry pp_ts_parse_table pp_LARGE_STATE_COUNT pp_ts_small_parse_table_map pp_ts_small_parse_table 14 25"
  "has_entry pp_ts_parse_table pp_LARGE_STATE_COUNT pp_ts_small_parse_table_map pp_ts_small_parse_table 14 26"
  "has_entry pp_ts_parse_table pp_LARGE_STATE_COUNT pp_ts_small_parse_table_map pp_ts_small_parse_table 14 29"
  "has_entry pp_ts_parse_table pp_LARGE_STATE_COUNT pp_ts_small_parse_table_map pp_ts_small_parse_table 14 30"
  "has_entry pp_ts_parse_table pp_LARGE_STATE_COUNT pp_ts_small_parse_table_map pp_ts_small_parse_table 14 31"
  "has_entry pp_ts_parse_table pp_LARGE_STATE_COUNT pp_ts_small_parse_table_map pp_ts_small_parse_table 14 32"
  "has_entry pp_ts_parse_table pp_LARGE_STATE_COUNT pp_ts_small_parse_table_map pp_ts_small_parse_table 14 33"
  "has_entry pp_ts_parse_table pp_LARGE_STATE_COUNT pp_ts_small_parse_table_map pp_ts_small_parse_table 15 24"
  "has_entry pp_ts_parse_table pp_LARGE_STATE_COUNT pp_ts_small_parse_table_map pp_ts_small_parse_table 15 25"
  "has_entry pp_ts_parse_table pp_LARGE_STATE_COUNT pp_ts_small_parse_table_map pp_ts_small_parse_table 15 26"
  "has_entry pp_ts_parse_table pp_LARGE_STATE_COUNT pp_ts_small_parse_table_map pp_ts_small_parse_table 15 29"
  "has_entry pp_ts_parse_table pp_LARGE_STATE_COUNT pp_ts_small_parse_table_map pp_ts_small_parse_table 15 30"
  "has_entry pp_ts_parse_table pp_LARGE_STATE_COUNT pp_ts_small_parse_table_map pp_ts_small_parse_table 15 31"
  "has_entry pp_ts_parse_table pp_LARGE_STATE_COUNT pp_ts_small_parse_table_map pp_ts_small_parse_table 15 32"
  "has_entry pp_ts_parse_table pp_LARGE_STATE_COUNT pp_ts_small_parse_table_map pp_ts_small_parse_table 15 33"
  "has_entry pp_ts_parse_table pp_LARGE_STATE_COUNT pp_ts_small_parse_table_map pp_ts_small_parse_table 58 27"
  "has_entry pp_ts_parse_table pp_LARGE_STATE_COUNT pp_ts_small_parse_table_map pp_ts_small_parse_table 58 28"
  "has_entry pp_ts_parse_table pp_LARGE_STATE_COUNT pp_ts_small_parse_table_map pp_ts_small_parse_table 58 35"
  "has_entry pp_ts_parse_table pp_LARGE_STATE_COUNT pp_ts_small_parse_table_map pp_ts_small_parse_table 59 27"
  "has_entry pp_ts_parse_table pp_LARGE_STATE_COUNT pp_ts_small_parse_table_map pp_ts_small_parse_table 59 28"
  "has_entry pp_ts_parse_table pp_LARGE_STATE_COUNT pp_ts_small_parse_table_map pp_ts_small_parse_table 59 35"
  "has_entry pp_ts_parse_table pp_LARGE_STATE_COUNT pp_ts_small_parse_table_map pp_ts_small_parse_table 60 27"
  "has_entry pp_ts_parse_table pp_LARGE_STATE_COUNT pp_ts_small_parse_table_map pp_ts_small_parse_table 60 28"
  "has_entry pp_ts_parse_table pp_LARGE_STATE_COUNT pp_ts_small_parse_table_map pp_ts_small_parse_table 60 35"
  "has_entry pp_ts_parse_table pp_LARGE_STATE_COUNT pp_ts_small_parse_table_map pp_ts_small_parse_table 61 27"
  "has_entry pp_ts_parse_table pp_LARGE_STATE_COUNT pp_ts_small_parse_table_map pp_ts_small_parse_table 61 28"
  "has_entry pp_ts_parse_table pp_LARGE_STATE_COUNT pp_ts_small_parse_table_map pp_ts_small_parse_table 61 35"
  "has_entry pp_ts_parse_table pp_LARGE_STATE_COUNT pp_ts_small_parse_table_map pp_ts_small_parse_table 62 27"
  "has_entry pp_ts_parse_table pp_LARGE_STATE_COUNT pp_ts_small_parse_table_map pp_ts_small_parse_table 62 28"
  "has_entry pp_ts_parse_table pp_LARGE_STATE_COUNT pp_ts_small_parse_table_map pp_ts_small_parse_table 62 35"
  "has_entry pp_ts_parse_table pp_LARGE_STATE_COUNT pp_ts_small_parse_table_map pp_ts_small_parse_table 63 27"
  "has_entry pp_ts_parse_table pp_LARGE_STATE_COUNT pp_ts_small_parse_table_map pp_ts_small_parse_table 63 28"
  "has_entry pp_ts_parse_table pp_LARGE_STATE_COUNT pp_ts_small_parse_table_map pp_ts_small_parse_table 63 35"
  "has_entry pp_ts_parse_table pp_LARGE_STATE_COUNT pp_ts_small_parse_table_map pp_ts_small_parse_table 64 27"
  "has_entry pp_ts_parse_table pp_LARGE_STATE_COUNT pp_ts_small_parse_table_map pp_ts_small_parse_table 64 35"
  "has_entry pp_ts_parse_table pp_LARGE_STATE_COUNT pp_ts_small_parse_table_map pp_ts_small_parse_table 65 31"
  "has_entry pp_ts_parse_table pp_LARGE_STATE_COUNT pp_ts_small_parse_table_map pp_ts_small_parse_table 66 31"
  "has_entry pp_ts_parse_table pp_LARGE_STATE_COUNT pp_ts_small_parse_table_map pp_ts_small_parse_table 67 31"
  "has_entry pp_ts_parse_table pp_LARGE_STATE_COUNT pp_ts_small_parse_table_map pp_ts_small_parse_table 68 34"
  "has_entry pp_ts_parse_table pp_LARGE_STATE_COUNT pp_ts_small_parse_table_map pp_ts_small_parse_table 69 34"
  "has_entry pp_ts_parse_table pp_LARGE_STATE_COUNT pp_ts_small_parse_table_map pp_ts_small_parse_table 70 34"
  "has_entry pp_ts_parse_table pp_LARGE_STATE_COUNT pp_ts_small_parse_table_map pp_ts_small_parse_table 71 34"
  "has_entry pp_ts_parse_table pp_LARGE_STATE_COUNT pp_ts_small_parse_table_map pp_ts_small_parse_table 72 34"
  "has_entry pp_ts_parse_table pp_LARGE_STATE_COUNT pp_ts_small_parse_table_map pp_ts_small_parse_table 73 34"
  "has_entry pp_ts_parse_table pp_LARGE_STATE_COUNT pp_ts_small_parse_table_map pp_ts_small_parse_table 74 34"
  "has_entry pp_ts_parse_table pp_LARGE_STATE_COUNT pp_ts_small_parse_table_map pp_ts_small_parse_table 75 34"
  "has_entry pp_ts_parse_table pp_LARGE_STATE_COUNT pp_ts_small_parse_table_map pp_ts_small_parse_table 76 34"
  "has_entry pp_ts_parse_table pp_LARGE_STATE_COUNT pp_ts_small_parse_table_map pp_ts_small_parse_table 77 34"
  "has_entry pp_ts_parse_table pp_LARGE_STATE_COUNT pp_ts_small_parse_table_map pp_ts_small_parse_table 78 34"
  "has_entry pp_ts_parse_table pp_LARGE_STATE_COUNT pp_ts_small_parse_table_map pp_ts_small_parse_table 79 34"
  "has_entry pp_ts_parse_table pp_LARGE_STATE_COUNT pp_ts_small_parse_table_map pp_ts_small_parse_table 80 34"
  "has_entry pp_ts_parse_table pp_LARGE_STATE_COUNT pp_ts_small_parse_table_map pp_ts_small_parse_table 81 34"
  "has_entry pp_ts_parse_table pp_LARGE_STATE_COUNT pp_ts_small_parse_table_map pp_ts_small_parse_table 82 34"
  "has_entry pp_ts_parse_table pp_LARGE_STATE_COUNT pp_ts_small_parse_table_map pp_ts_small_parse_table 83 34"
  "has_entry pp_ts_parse_table pp_LARGE_STATE_COUNT pp_ts_small_parse_table_map pp_ts_small_parse_table 84 34"
  "has_entry pp_ts_parse_table pp_LARGE_STATE_COUNT pp_ts_small_parse_table_map pp_ts_small_parse_table 85 34"
  "has_entry pp_ts_parse_table pp_LARGE_STATE_COUNT pp_ts_small_parse_table_map pp_ts_small_parse_table 86 34"
  by (simp_all add: has_entry_def pp_map_facts pp_run_facts pp_table_defs)
lemma pp_entries_large:
  "check_large (certified_entry pp_incoming pp_reductions pp_grammar pp_sym_translation_unit pp_TOKEN_COUNT
     pp_ts_parse_actions) pp_ts_parse_table"
  by (simp add: pp_check_simps pp_table_defs)

lemma pp_entries_small:
  "check_small (certified_entry pp_incoming pp_reductions pp_grammar pp_sym_translation_unit pp_TOKEN_COUNT
     pp_ts_parse_actions) pp_LARGE_STATE_COUNT pp_ts_small_parse_table_map pp_ts_small_parse_table"
  by (simp add: pp_check_simps pp_ts_small_parse_table_map_def)

lemma pp_walks: "certified_reductions pp_incoming pp_reductions pp_grammar"
  by (subst pp_reductions_def, simp add: pp_check_simps)

lemma pp_certificate:
  "array_of [] pp_incoming (Suc 0) = []" "array_of [] pp_incoming 0 = []"
  "list_all (\<lambda>(q, ps). q < pp_STATE_COUNT) pp_incoming"
  "list_all (\<lambda>(q, A, n). A < pp_SYMBOL_COUNT \<and> pp_TOKEN_COUNT \<le> A) pp_reductions"
  by (simp_all add: pp_incoming_def pp_reductions_def)

interpretation pp_tables: certified_tables tree_sitter_preproc pp_ts_parse_table pp_ts_small_parse_table_map
    pp_ts_small_parse_table pp_ts_parse_actions pp_incoming pp_reductions pp_grammar pp_sym_translation_unit
  by unfold_locales (simp_all add: pp_sizes pp_entries_large pp_entries_small pp_walks pp_certificate)

lemma pp_bounded_large: "check_large (bounded_entry tree_sitter_preproc pp_ts_parse_actions) pp_ts_parse_table"
  by (simp add: pp_check_simps bounded_entry_def actions_decide_def pp_sizes pp_table_defs)

lemma pp_bounded_small:
  "check_small (bounded_entry tree_sitter_preproc pp_ts_parse_actions) pp_LARGE_STATE_COUNT
     pp_ts_small_parse_table_map pp_ts_small_parse_table"
  by (simp add: pp_check_simps bounded_entry_def actions_decide_def pp_sizes pp_ts_small_parse_table_map_def)

lemma pp_gotos:
  "list_all (\<lambda>(q, A, n). uncovers pp_incoming
     (\<lambda>p. has_entry pp_ts_parse_table pp_LARGE_STATE_COUNT pp_ts_small_parse_table_map pp_ts_small_parse_table p A) n q)
     pp_reductions"
  by (subst pp_reductions_def, simp add: pp_check_simps pp_goto_facts)

interpretation pp_live: live_tables tree_sitter_preproc pp_ts_parse_table pp_ts_small_parse_table_map
    pp_ts_small_parse_table pp_ts_parse_actions pp_incoming pp_reductions pp_grammar pp_sym_translation_unit
  by unfold_locales (simp add: pp_sizes pp_gotos)

section \<open>A run\<close>

lemma pp_actions_complete: "list_all (\<lambda>(k, es). complete_actions es) pp_ts_parse_actions"
  by (simp add: pp_actions_eq)

lemmas pp_read =
  table_actions_def pp_init.large_value pp_init.small_value pp_init.actions_value [OF pp_actions_complete]
  pp_sizes pp_map_facts pp_run_facts pp_action_facts pp_table_defs

lemma pp_conditional_entries:
  "table_actions tree_sitter_preproc 1 pp_aux_sym_preproc_if_token1 = [TSParseActionTypeShift 4 False False]"
  "table_actions tree_sitter_preproc 4 pp_sym_nothing = [TSParseActionTypeShift 2 False False]"
  "table_actions tree_sitter_preproc 2 pp_aux_sym_preproc_if_token2 = [TSParseActionTypeShift 35 False False]"
  "table_actions tree_sitter_preproc 35 0 = [TSParseActionTypeReduce 3 pp_sym_preproc_if 0 0]"
  "table_value tree_sitter_preproc 1 pp_sym_preproc_if = 12"
  "table_actions tree_sitter_preproc 12 0 = [TSParseActionTypeReduce 1 pp_sym_translation_unit 0 0]"
  "table_value tree_sitter_preproc 1 pp_sym_translation_unit = 115"
  "table_actions tree_sitter_preproc 115 0 = [TSParseActionTypeAccept]"
  by (simp_all add: pp_read)

abbreviation pp_runs :: "lr_config \<Rightarrow> lr_config \<Rightarrow> bool" where
  "pp_runs \<equiv> (lr_step tree_sitter_preproc)\<^sup>*\<^sup>*"

lemma pp_shift:
  "TSParseActionTypeShift q False False \<in> set (table_actions tree_sitter_preproc s t) \<Longrightarrow>
   pp_runs (q # s # ss, ts) c \<Longrightarrow> pp_runs (s # ss, t # ts) c"
  by (blast intro: converse_rtranclp_into_rtranclp lr_shift)

lemma pp_reduce:
  "TSParseActionTypeReduce n A 0 0 \<in> set (table_actions tree_sitter_preproc s t) \<Longrightarrow>
   drop n (s # ss) = p # ps \<Longrightarrow> table_value tree_sitter_preproc p A = q \<Longrightarrow> q \<noteq> 0 \<Longrightarrow>
   pp_runs (q # p # ps, t # ts) c \<Longrightarrow> pp_runs (s # ss, t # ts) c"
  by (blast intro: converse_rtranclp_into_rtranclp lr_reduce)

text \<open>A conditional group with some text in it, from the first token to acceptance.\<close>

lemma pp_conditional_run:
  "pp_runs ([1], [pp_aux_sym_preproc_if_token1, pp_sym_nothing, pp_aux_sym_preproc_if_token2, 0]) ([35, 2, 4, 1], [0])"
proof -
  have "pp_runs ([2, 4, 1], [pp_aux_sym_preproc_if_token2, 0]) ([35, 2, 4, 1], [0])"
    by (rule pp_shift [OF _ rtranclp.rtrancl_refl]) (simp add: pp_conditional_entries)
  then have "pp_runs ([4, 1], [pp_sym_nothing, pp_aux_sym_preproc_if_token2, 0]) ([35, 2, 4, 1], [0])"
    by (rule pp_shift [rotated]) (simp add: pp_conditional_entries)
  then show ?thesis
    by (rule pp_shift [rotated]) (simp only: pp_conditional_entries list.set insertI1)
qed

lemma pp_conditional_end: "pp_runs ([35, 2, 4, 1], [0]) ([115, 1], [0])"
proof -
  have "pp_runs ([12, 1], [0]) ([115, 1], [0])"
    by (rule pp_reduce [OF _ _ pp_conditional_entries(7) _ rtranclp.rtrancl_refl, of 1])
      (simp_all add: pp_conditional_entries)
  then show ?thesis
    by (rule pp_reduce [OF _ _ pp_conditional_entries(5), rotated 3, where n = 3])
      (simp_all add: pp_conditional_entries)
qed

lemma pp_conditional_accepted:
  "lr_accepts tree_sitter_preproc [pp_aux_sym_preproc_if_token1, pp_sym_nothing, pp_aux_sym_preproc_if_token2]"
  unfolding lr_accepts_def
  using rtranclp_trans [OF pp_conditional_run pp_conditional_end] pp_conditional_entries(8) by force

section \<open>Properties\<close>

text \<open>
  Property C4. The preprocessor parser is sound: every sequence of tokens its tables accept is
  derivable in the grammar of \<^verbatim>\<open>grammar.js\<close> from
  \<^verbatim>\<open>translation_unit\<close>.
\<close>

theorem pp_parser_sound:
  assumes "lr_accepts tree_sitter_preproc w" and "\<forall>t \<in> set w. t < token_count tree_sitter_preproc"
  shows "derives pp_grammar [pp_sym_translation_unit] w"
  by (rule pp_tables.accepted_derivable [OF assms])

theorem pp_parser_sound_witness:
  "derives pp_grammar [pp_sym_translation_unit]
     [pp_aux_sym_preproc_if_token1, pp_sym_nothing, pp_aux_sym_preproc_if_token2]"
  using pp_parser_sound [OF pp_conditional_accepted] by (simp add: pp_sizes)

text \<open>The brackets of the preprocessor, and what may stand only inside them.\<close>

definition pp_closer :: "TSSymbol \<Rightarrow> TSSymbol option" where
  "pp_closer x = (if x = pp_aux_sym_preproc_if_token1 then Some pp_aux_sym_preproc_if_token2 else None)"

definition pp_inner :: "TSSymbol list" where
  "pp_inner = [pp_aux_sym_preproc_elif_token1, pp_aux_sym_preproc_else_token1, pp_sym_preproc_elif,
     pp_sym_preproc_else, pp_aux_sym_preproc_if_repeat1]"

lemma pp_nested_grammar: "nested_grammar pp_closer [pp_aux_sym_preproc_if_token2] pp_inner pp_grammar"
  by (simp add: pp_grammar_eq nested_grammar_def pp_closer_def pp_inner_def)

text \<open>
  Property C13. In whatever the preprocessor parser accepts the conditional directives are nested:
  every opening one has its \<^verbatim>\<open>#endif\<close>, and \<^verbatim>\<open>#elif\<close> and
  \<^verbatim>\<open>#else\<close> stand only between the two.
\<close>

theorem pp_conditionals_nested:
  assumes "lr_accepts tree_sitter_preproc w" and "\<forall>t \<in> set w. t < token_count tree_sitter_preproc"
  shows "nested pp_closer [pp_aux_sym_preproc_if_token2] pp_inner w"
  unfolding nested_def
  by (rule derives_nest [OF pp_nested_grammar pp_tables.accepted_derivable [OF assms]])
    (simp add: pp_closer_def pp_inner_def)

theorem pp_conditionals_nested_witness:
  "nested pp_closer [pp_aux_sym_preproc_if_token2] pp_inner
     [pp_aux_sym_preproc_if_token1, pp_sym_nothing, pp_aux_sym_preproc_if_token2]"
  using pp_conditionals_nested [OF pp_conditional_accepted] by (simp add: pp_sizes)

text \<open>
  The preprocessor parser's tables are well formed and free of conflicts: each non-zero
  entry of a token decodes to actions that name existing states, non-terminals and productions, of
  which exactly one is not a repetition; each non-zero entry of a non-terminal is an existing state.
\<close>

theorem pp_tables_well_formed:
  assumes "s < state_count tree_sitter_preproc" and "x < symbol_count tree_sitter_preproc"
    and "table_value tree_sitter_preproc s x \<noteq> 0"
  shows "if x < token_count tree_sitter_preproc
    then list_all (action_in_bounds tree_sitter_preproc) (table_actions tree_sitter_preproc s x) \<and>
      actions_decide (table_actions tree_sitter_preproc s x)
    else table_value tree_sitter_preproc s x < state_count tree_sitter_preproc"
  using pp_init.bounded [OF pp_bounded_large _ assms] pp_bounded_small by (simp add: pp_sizes)

theorem pp_tables_well_formed_witness:
  "actions_decide (table_actions tree_sitter_preproc 4 pp_sym_nothing)"
proof -
  have "table_value tree_sitter_preproc 4 pp_sym_nothing \<noteq> 0"
    by (simp add: pp_read)
  then show ?thesis
    using pp_tables_well_formed [of 4 pp_sym_nothing] by (simp add: pp_sizes)
qed

text \<open>
  The preprocessor parser never gets stuck on its own tables: in every configuration
  reached from the start, each action the tables hold for the next token can be taken; in particular
  the stack is deep enough for every reduction and the uncovered state has an entry for the symbol.
\<close>

theorem pp_parser_not_stuck:
  assumes "(lr_step tree_sitter_preproc)\<^sup>*\<^sup>* ([1], w @ [0]) (s # ss, t # ts)"
    and "\<forall>x \<in> set w. x < token_count tree_sitter_preproc"
    and "a \<in> set (table_actions tree_sitter_preproc s t)"
  shows "takes_action tree_sitter_preproc (s # ss, t # ts) a"
  by (rule pp_live.action_taken [OF assms])

theorem pp_parser_not_stuck_witness:
  "takes_action tree_sitter_preproc ([35, 2, 4, 1], [0]) (TSParseActionTypeReduce 3 pp_sym_preproc_if 0 0)"
proof (rule pp_parser_not_stuck)
  show "pp_runs ([1], [pp_aux_sym_preproc_if_token1, pp_sym_nothing, pp_aux_sym_preproc_if_token2] @ [0])
      ([35, 2, 4, 1], [0])"
    using pp_conditional_run by simp
  show "TSParseActionTypeReduce 3 pp_sym_preproc_if 0 0 \<in> set (table_actions tree_sitter_preproc 35 0)"
    by (simp add: pp_conditional_entries)
qed (simp_all add: pp_sizes)

end
