(* ===== verification/Preproc_Parse.thy ===== *)
theory Preproc_Parse
  imports Preproc_Text Preproc_Table
begin

text \<open>
  The lexer and the tables of the \<^verbatim>\<open>preproc\<close> parser together: whatever token the tables have an
  action for, the lexer can return in the mode of that state.
\<close>

text \<open>A text for each token.\<close>

definition pp_sample :: "TSSymbol \<Rightarrow> codepoint list" where
  "pp_sample x = array_of []
    [(ts_builtin_sym_end, []),
     (pp_sym_identifier, [CH_a]),
     (pp_sym_nothing, [CH_a]),
     (pp_sym_preproc_continuation_line, [CH_BACKSLASH, CH_LF]),
     (pp_sym_preproc_line, [CH_a]),
     (pp_aux_sym_preproc_include_token1, [CH_HASH, CH_i, CH_n, CH_c, CH_l, CH_u, CH_d, CH_e]),
     (pp_anon_sym_LT, [CH_LT]),
     (pp_anon_sym_GT, [CH_GT]),
     (pp_sym_path, [CH_a]),
     (pp_aux_sym_define_token1, [CH_HASH, CH_d, CH_e, CH_f, CH_i, CH_n, CH_e, CH_SPACE]),
     (pp_anon_sym_LF, [CH_LF]),
     (pp_aux_sym_preproc_if_token1, [CH_HASH, CH_i, CH_f, CH_LF]),
     (pp_aux_sym_preproc_if_token2, [CH_HASH, CH_e, CH_n, CH_d, CH_i, CH_f, CH_LF]),
     (pp_aux_sym_preproc_elif_token1, [CH_HASH, CH_e, CH_l, CH_i, CH_f, CH_LF]),
     (pp_aux_sym_preproc_else_token1, [CH_HASH, CH_e, CH_l, CH_s, CH_e, CH_LF]),
     (pp_aux_sym_undef_token1, [CH_HASH, CH_u, CH_n, CH_d, CH_e, CH_f, CH_SPACE]),
     (pp_aux_sym_preproc_nothing_token1, [CH_HASH, CH_l, CH_i, CH_n, CH_e]),
     (pp_aux_sym_string_literal_token1, [CH_DQUOTE, CH_DQUOTE]),
     (pp_aux_sym_char_literal_token1, [CH_QUOTE, CH_QUOTE]),
     (pp_sym_integer_literal, [CH_0]),
     (pp_sym_comment, [CH_SLASH, CH_SLASH])] x"

text \<open>The tokens each lex mode has to provide.\<close>

definition pp_mode_tokens :: "(TSStateId \<times> TSSymbol list) list" where
  "pp_mode_tokens =
    [(0, [ts_builtin_sym_end, pp_sym_identifier, pp_aux_sym_preproc_include_token1, pp_anon_sym_LT, pp_anon_sym_GT, pp_aux_sym_define_token1, pp_aux_sym_preproc_if_token1, pp_aux_sym_preproc_if_token2, pp_aux_sym_preproc_elif_token1, pp_aux_sym_preproc_else_token1, pp_aux_sym_undef_token1, pp_aux_sym_preproc_nothing_token1, pp_aux_sym_string_literal_token1, pp_aux_sym_char_literal_token1, pp_sym_integer_literal, pp_sym_comment]),
     (9, [pp_anon_sym_LF]),
     (10, [pp_sym_nothing, pp_aux_sym_preproc_include_token1, pp_aux_sym_define_token1, pp_aux_sym_preproc_if_token1, pp_aux_sym_preproc_if_token2, pp_aux_sym_preproc_elif_token1, pp_aux_sym_preproc_else_token1, pp_aux_sym_undef_token1, pp_aux_sym_preproc_nothing_token1, pp_aux_sym_string_literal_token1, pp_aux_sym_char_literal_token1, pp_sym_integer_literal, pp_sym_comment]),
     (11, [pp_sym_nothing, pp_aux_sym_preproc_include_token1, pp_aux_sym_define_token1, pp_aux_sym_preproc_if_token1, pp_aux_sym_preproc_if_token2, pp_aux_sym_undef_token1, pp_aux_sym_preproc_nothing_token1, pp_aux_sym_string_literal_token1, pp_aux_sym_char_literal_token1, pp_sym_integer_literal, pp_sym_comment]),
     (71, [ts_builtin_sym_end, pp_sym_nothing, pp_aux_sym_preproc_include_token1, pp_aux_sym_define_token1, pp_aux_sym_preproc_if_token1, pp_aux_sym_undef_token1, pp_aux_sym_preproc_nothing_token1, pp_aux_sym_string_literal_token1, pp_aux_sym_char_literal_token1, pp_sym_integer_literal, pp_sym_comment]),
     (93, [pp_sym_preproc_continuation_line, pp_sym_preproc_line]),
     (98, [pp_sym_path])]"

lemma pp_samples:
  "list_all (\<lambda>(m, ys). list_all (\<lambda>y. munch pp_ts_lex m None (pp_sample y) = Some (y, [])) ys) pp_mode_tokens"
  by (simp add: pp_mode_tokens_def pp_sample_def pp_munch_eval)

definition pp_served :: "TSStateId \<Rightarrow> TSSymbol \<Rightarrow> nat \<Rightarrow> bool" where
  "pp_served s x v \<longleftrightarrow>
     (let mode = array_of \<lparr>lex_state = 0, external_lex_state = 0\<rparr> pp_ts_lex_modes s
      in if x = pp_sym_raw_string_literal then external_lex_state mode = 1
         else x < 22 \<longrightarrow> (lex_state mode, x) \<in> set (concat (map (\<lambda>(m, ys). map (Pair m) ys) pp_mode_tokens)))"

lemmas pp_mode_pairs = pp_mode_tokens_def [THEN arg_cong [of _ _ "\<lambda>t. concat (map (\<lambda>(m, ys). map (Pair m) ys) t)"], simplified]

lemma pp_served_large: "check_large pp_served pp_ts_parse_table"
  by (simp add: pp_check_simps pp_served_def pp_mode_pairs pp_ts_lex_modes_def pp_table_defs)

lemma pp_served_small:
  "check_small pp_served pp_LARGE_STATE_COUNT pp_ts_small_parse_table_map pp_ts_small_parse_table"
  by (simp add: pp_check_simps pp_served_def pp_mode_pairs pp_ts_lex_modes_def pp_ts_small_parse_table_map_def)

lemma pp_pair_sample:
  "(m, y) \<in> set (concat (map (\<lambda>(m, ys). map (Pair m) ys) pp_mode_tokens)) \<Longrightarrow>
   munch pp_ts_lex m None (pp_sample y) = Some (y, [])"
  using pp_samples by (auto simp: list_all_iff)

text \<open>
  Property C10. The lexer serves the parser: for every entry the preprocessor tables have for a token in
  a state, the lex mode of that state can return the token (there is a text whose longest token it
  is), or, for a raw string, asks the external scanner for it.
\<close>

theorem pp_lexer_serves_parser:
  assumes "s < state_count tree_sitter_preproc" and "x < token_count tree_sitter_preproc"
    and "table_value tree_sitter_preproc s x \<noteq> 0"
  shows "if x = pp_sym_raw_string_literal
    then external_states tree_sitter_preproc (external_lex_state (lex_modes tree_sitter_preproc s) *
           external_token_count tree_sitter_preproc + pp_ts_external_token_raw_string_literal)
    else \<exists>text. longest_token (language_lex tree_sitter_preproc) (lex_state (lex_modes tree_sitter_preproc s)) text x []"
proof -
  have served: "pp_served s x (table_value tree_sitter_preproc s x)"
    using pp_init.every_entry [OF pp_served_large _ assms(1) _ assms(3)] pp_served_small assms(2)
    by (simp add: pp_sizes)
  define mode where "mode = lex_modes tree_sitter_preproc s"
  have mode: "mode = array_of \<lparr>lex_state = 0, external_lex_state = 0\<rparr> pp_ts_lex_modes s"
    by (simp add: mode_def tree_sitter_preproc_def)
  show ?thesis
  proof (cases "x = pp_sym_raw_string_literal")
    case True
    with served have "external_lex_state mode = 1"
      by (simp add: pp_served_def mode Let_def)
    with True show ?thesis
      unfolding mode_def
      by (simp add: tree_sitter_preproc_def flat_table_def pp_ts_external_scanner_states_def)
  next
    case False
    have "munch pp_ts_lex (lex_state mode) None (pp_sample x) = Some (x, [])"
      by (rule pp_pair_sample) (use served False assms(2) in \<open>simp add: pp_served_def mode Let_def pp_sizes\<close>)
    then have "longest_token pp_ts_lex (lex_state mode) (pp_sample x) x []"
      by (simp add: munch_spec)
    with False show ?thesis
      unfolding mode_def by (auto simp: tree_sitter_preproc_def)
  qed
qed

theorem pp_lexer_serves_parser_witness:
  "\<exists>text. longest_token (language_lex tree_sitter_preproc) (lex_state (lex_modes tree_sitter_preproc 1)) text
     pp_aux_sym_define_token1 []"
proof -
  have "table_value tree_sitter_preproc 1 pp_aux_sym_define_token1 \<noteq> 0"
    by (simp add: pp_read)
  then show ?thesis
    using pp_lexer_serves_parser [of 1 pp_aux_sym_define_token1] by (simp add: pp_sizes)
qed

end
