(* ===== verification/Tcl_Lex.thy ===== *)
theory Tcl_Lex
  imports Token_Regex
begin

text \<open>
  The generated lexers of the Tcl grammar: \<^verbatim>\<open>ts_lex\<close> and
  \<^verbatim>\<open>ts_lex_keywords\<close> of \<^verbatim>\<open>tree-sitter-tcl/src/parser.c\<close>, one definition
  per \<^verbatim>\<open>case\<close>, the character set \<^verbatim>\<open>ts_lex\<close> asks for, and the symbols of
  \<^verbatim>\<open>enum ts_symbol_identifiers\<close>. The runtime runs the second lexer on a word the first
  one has found, to see whether it is a keyword.
\<close>

section \<open>Symbols\<close>

abbreviation (input) tcl_sym_simple_word :: TSSymbol where "tcl_sym_simple_word \<equiv> 1"
abbreviation (input) tcl_anon_sym_LF :: TSSymbol where "tcl_anon_sym_LF \<equiv> 2"
abbreviation (input) tcl_anon_sym_SEMI :: TSSymbol where "tcl_anon_sym_SEMI \<equiv> 3"
abbreviation (input) tcl_sym_comment :: TSSymbol where "tcl_sym_comment \<equiv> 4"
abbreviation (input) tcl_anon_sym_regexp :: TSSymbol where "tcl_anon_sym_regexp \<equiv> 5"
abbreviation (input) tcl_anon_sym_while :: TSSymbol where "tcl_anon_sym_while \<equiv> 6"
abbreviation (input) tcl_anon_sym_expr :: TSSymbol where "tcl_anon_sym_expr \<equiv> 7"
abbreviation (input) tcl_anon_sym_foreach :: TSSymbol where "tcl_anon_sym_foreach \<equiv> 8"
abbreviation (input) tcl_anon_sym_global :: TSSymbol where "tcl_anon_sym_global \<equiv> 9"
abbreviation (input) tcl_anon_sym_namespace :: TSSymbol where "tcl_anon_sym_namespace \<equiv> 10"
abbreviation (input) tcl_anon_sym_try :: TSSymbol where "tcl_anon_sym_try \<equiv> 11"
abbreviation (input) tcl_anon_sym_on :: TSSymbol where "tcl_anon_sym_on \<equiv> 12"
abbreviation (input) tcl_anon_sym_error :: TSSymbol where "tcl_anon_sym_error \<equiv> 13"
abbreviation (input) tcl_anon_sym_finally :: TSSymbol where "tcl_anon_sym_finally \<equiv> 14"
abbreviation (input) tcl_sym_unpack :: TSSymbol where "tcl_sym_unpack \<equiv> 15"
abbreviation (input) tcl_anon_sym_COLON_COLON :: TSSymbol where "tcl_anon_sym_COLON_COLON \<equiv> 16"
abbreviation (input) tcl_sym__ident_imm :: TSSymbol where "tcl_sym__ident_imm \<equiv> 17"
abbreviation (input) tcl_sym__ident :: TSSymbol where "tcl_sym__ident \<equiv> 18"
abbreviation (input) tcl_anon_sym_COLON_COLON2 :: TSSymbol where "tcl_anon_sym_COLON_COLON2 \<equiv> 19"
abbreviation (input) tcl_anon_sym_LPAREN :: TSSymbol where "tcl_anon_sym_LPAREN \<equiv> 20"
abbreviation (input) tcl_anon_sym_RPAREN :: TSSymbol where "tcl_anon_sym_RPAREN \<equiv> 21"
abbreviation (input) tcl_anon_sym_DOLLAR :: TSSymbol where "tcl_anon_sym_DOLLAR \<equiv> 22"
abbreviation (input) tcl_anon_sym_LBRACE :: TSSymbol where "tcl_anon_sym_LBRACE \<equiv> 23"
abbreviation (input) tcl_aux_sym_variable_substitution_token1 :: TSSymbol where "tcl_aux_sym_variable_substitution_token1 \<equiv> 24"
abbreviation (input) tcl_anon_sym_RBRACE :: TSSymbol where "tcl_anon_sym_RBRACE \<equiv> 25"
abbreviation (input) tcl_anon_sym_set :: TSSymbol where "tcl_anon_sym_set \<equiv> 26"
abbreviation (input) tcl_anon_sym_proc :: TSSymbol where "tcl_anon_sym_proc \<equiv> 27"
abbreviation (input) tcl_sym_number :: TSSymbol where "tcl_sym_number \<equiv> 28"
abbreviation (input) tcl_sym__boolean :: TSSymbol where "tcl_sym__boolean \<equiv> 29"
abbreviation (input) tcl_anon_sym_LPAREN2 :: TSSymbol where "tcl_anon_sym_LPAREN2 \<equiv> 30"
abbreviation (input) tcl_anon_sym_DASH :: TSSymbol where "tcl_anon_sym_DASH \<equiv> 31"
abbreviation (input) tcl_anon_sym_PLUS :: TSSymbol where "tcl_anon_sym_PLUS \<equiv> 32"
abbreviation (input) tcl_anon_sym_TILDE :: TSSymbol where "tcl_anon_sym_TILDE \<equiv> 33"
abbreviation (input) tcl_anon_sym_BANG :: TSSymbol where "tcl_anon_sym_BANG \<equiv> 34"
abbreviation (input) tcl_anon_sym_STAR_STAR :: TSSymbol where "tcl_anon_sym_STAR_STAR \<equiv> 35"
abbreviation (input) tcl_anon_sym_SLASH :: TSSymbol where "tcl_anon_sym_SLASH \<equiv> 36"
abbreviation (input) tcl_anon_sym_STAR :: TSSymbol where "tcl_anon_sym_STAR \<equiv> 37"
abbreviation (input) tcl_anon_sym_PERCENT :: TSSymbol where "tcl_anon_sym_PERCENT \<equiv> 38"
abbreviation (input) tcl_anon_sym_LT_LT :: TSSymbol where "tcl_anon_sym_LT_LT \<equiv> 39"
abbreviation (input) tcl_anon_sym_GT_GT :: TSSymbol where "tcl_anon_sym_GT_GT \<equiv> 40"
abbreviation (input) tcl_anon_sym_GT :: TSSymbol where "tcl_anon_sym_GT \<equiv> 41"
abbreviation (input) tcl_anon_sym_LT :: TSSymbol where "tcl_anon_sym_LT \<equiv> 42"
abbreviation (input) tcl_anon_sym_GT_EQ :: TSSymbol where "tcl_anon_sym_GT_EQ \<equiv> 43"
abbreviation (input) tcl_anon_sym_LT_EQ :: TSSymbol where "tcl_anon_sym_LT_EQ \<equiv> 44"
abbreviation (input) tcl_anon_sym_EQ_EQ :: TSSymbol where "tcl_anon_sym_EQ_EQ \<equiv> 45"
abbreviation (input) tcl_anon_sym_BANG_EQ :: TSSymbol where "tcl_anon_sym_BANG_EQ \<equiv> 46"
abbreviation (input) tcl_anon_sym_eq :: TSSymbol where "tcl_anon_sym_eq \<equiv> 47"
abbreviation (input) tcl_anon_sym_ne :: TSSymbol where "tcl_anon_sym_ne \<equiv> 48"
abbreviation (input) tcl_anon_sym_in :: TSSymbol where "tcl_anon_sym_in \<equiv> 49"
abbreviation (input) tcl_anon_sym_ni :: TSSymbol where "tcl_anon_sym_ni \<equiv> 50"
abbreviation (input) tcl_anon_sym_AMP :: TSSymbol where "tcl_anon_sym_AMP \<equiv> 51"
abbreviation (input) tcl_anon_sym_CARET :: TSSymbol where "tcl_anon_sym_CARET \<equiv> 52"
abbreviation (input) tcl_anon_sym_PIPE :: TSSymbol where "tcl_anon_sym_PIPE \<equiv> 53"
abbreviation (input) tcl_anon_sym_AMP_AMP :: TSSymbol where "tcl_anon_sym_AMP_AMP \<equiv> 54"
abbreviation (input) tcl_anon_sym_PIPE_PIPE :: TSSymbol where "tcl_anon_sym_PIPE_PIPE \<equiv> 55"
abbreviation (input) tcl_anon_sym_QMARK :: TSSymbol where "tcl_anon_sym_QMARK \<equiv> 56"
abbreviation (input) tcl_anon_sym_COLON :: TSSymbol where "tcl_anon_sym_COLON \<equiv> 57"
abbreviation (input) tcl_anon_sym_elseif :: TSSymbol where "tcl_anon_sym_elseif \<equiv> 58"
abbreviation (input) tcl_anon_sym_else :: TSSymbol where "tcl_anon_sym_else \<equiv> 59"
abbreviation (input) tcl_anon_sym_if :: TSSymbol where "tcl_anon_sym_if \<equiv> 60"
abbreviation (input) tcl_anon_sym_catch :: TSSymbol where "tcl_anon_sym_catch \<equiv> 61"
abbreviation (input) tcl_anon_sym_DQUOTE :: TSSymbol where "tcl_anon_sym_DQUOTE \<equiv> 62"
abbreviation (input) tcl_sym_escaped_character :: TSSymbol where "tcl_sym_escaped_character \<equiv> 63"
abbreviation (input) tcl_sym__quoted_word_content :: TSSymbol where "tcl_sym__quoted_word_content \<equiv> 64"
abbreviation (input) tcl_anon_sym_LBRACK :: TSSymbol where "tcl_anon_sym_LBRACK \<equiv> 65"
abbreviation (input) tcl_anon_sym_RBRACK :: TSSymbol where "tcl_anon_sym_RBRACK \<equiv> 66"
abbreviation (input) tcl_sym__concat :: TSSymbol where "tcl_sym__concat \<equiv> 67"
abbreviation (input) tcl_sym__immediate :: TSSymbol where "tcl_sym__immediate \<equiv> 68"
abbreviation (input) tcl_sym_source_file :: TSSymbol where "tcl_sym_source_file \<equiv> 69"
abbreviation (input) tcl_sym_regexp :: TSSymbol where "tcl_sym_regexp \<equiv> 70"
abbreviation (input) tcl_sym_while :: TSSymbol where "tcl_sym_while \<equiv> 71"
abbreviation (input) tcl_sym_expr_cmd :: TSSymbol where "tcl_sym_expr_cmd \<equiv> 72"
abbreviation (input) tcl_sym_foreach :: TSSymbol where "tcl_sym_foreach \<equiv> 73"
abbreviation (input) tcl_sym_global :: TSSymbol where "tcl_sym_global \<equiv> 74"
abbreviation (input) tcl_sym_namespace :: TSSymbol where "tcl_sym_namespace \<equiv> 75"
abbreviation (input) tcl_sym_try :: TSSymbol where "tcl_sym_try \<equiv> 76"
abbreviation (input) tcl_sym_finally :: TSSymbol where "tcl_sym_finally \<equiv> 77"
abbreviation (input) tcl_sym__command :: TSSymbol where "tcl_sym__command \<equiv> 78"
abbreviation (input) tcl_sym_command :: TSSymbol where "tcl_sym_command \<equiv> 79"
abbreviation (input) tcl_sym_word_list :: TSSymbol where "tcl_sym_word_list \<equiv> 80"
abbreviation (input) tcl_sym__word_simple :: TSSymbol where "tcl_sym__word_simple \<equiv> 81"
abbreviation (input) tcl_sym__concat_word :: TSSymbol where "tcl_sym__concat_word \<equiv> 82"
abbreviation (input) tcl_sym__ns_delim :: TSSymbol where "tcl_sym__ns_delim \<equiv> 83"
abbreviation (input) tcl_sym__id_immediate :: TSSymbol where "tcl_sym__id_immediate \<equiv> 84"
abbreviation (input) tcl_sym_id :: TSSymbol where "tcl_sym_id \<equiv> 85"
abbreviation (input) tcl_sym_array_index :: TSSymbol where "tcl_sym_array_index \<equiv> 86"
abbreviation (input) tcl_sym_variable_substitution :: TSSymbol where "tcl_sym_variable_substitution \<equiv> 87"
abbreviation (input) tcl_sym_braced_word :: TSSymbol where "tcl_sym_braced_word \<equiv> 88"
abbreviation (input) tcl_sym_braced_word_simple :: TSSymbol where "tcl_sym_braced_word_simple \<equiv> 89"
abbreviation (input) tcl_sym_set :: TSSymbol where "tcl_sym_set \<equiv> 90"
abbreviation (input) tcl_sym_procedure :: TSSymbol where "tcl_sym_procedure \<equiv> 91"
abbreviation (input) tcl_sym__argument_word :: TSSymbol where "tcl_sym__argument_word \<equiv> 92"
abbreviation (input) tcl_sym_argument :: TSSymbol where "tcl_sym_argument \<equiv> 93"
abbreviation (input) tcl_sym_arguments :: TSSymbol where "tcl_sym_arguments \<equiv> 94"
abbreviation (input) tcl_sym__expr_atom_no_brace :: TSSymbol where "tcl_sym__expr_atom_no_brace \<equiv> 95"
abbreviation (input) tcl_sym__expr :: TSSymbol where "tcl_sym__expr \<equiv> 96"
abbreviation (input) tcl_sym_expr :: TSSymbol where "tcl_sym_expr \<equiv> 97"
abbreviation (input) tcl_sym_unary_expr :: TSSymbol where "tcl_sym_unary_expr \<equiv> 98"
abbreviation (input) tcl_sym_binop_expr :: TSSymbol where "tcl_sym_binop_expr \<equiv> 99"
abbreviation (input) tcl_sym_ternary_expr :: TSSymbol where "tcl_sym_ternary_expr \<equiv> 100"
abbreviation (input) tcl_sym_elseif :: TSSymbol where "tcl_sym_elseif \<equiv> 101"
abbreviation (input) tcl_sym_else :: TSSymbol where "tcl_sym_else \<equiv> 102"
abbreviation (input) tcl_sym_if :: TSSymbol where "tcl_sym_if \<equiv> 103"
abbreviation (input) tcl_sym__conditional :: TSSymbol where "tcl_sym__conditional \<equiv> 104"
abbreviation (input) tcl_sym_catch :: TSSymbol where "tcl_sym_catch \<equiv> 105"
abbreviation (input) tcl_sym_quoted_word :: TSSymbol where "tcl_sym_quoted_word \<equiv> 106"
abbreviation (input) tcl_sym_command_substitution :: TSSymbol where "tcl_sym_command_substitution \<equiv> 107"
abbreviation (input) tcl_aux_sym_source_file_repeat1 :: TSSymbol where "tcl_aux_sym_source_file_repeat1 \<equiv> 108"
abbreviation (input) tcl_aux_sym_regexp_repeat1 :: TSSymbol where "tcl_aux_sym_regexp_repeat1 \<equiv> 109"
abbreviation (input) tcl_aux_sym_word_list_repeat1 :: TSSymbol where "tcl_aux_sym_word_list_repeat1 \<equiv> 110"
abbreviation (input) tcl_aux_sym__word_simple_repeat1 :: TSSymbol where "tcl_aux_sym__word_simple_repeat1 \<equiv> 111"
abbreviation (input) tcl_aux_sym__concat_word_repeat1 :: TSSymbol where "tcl_aux_sym__concat_word_repeat1 \<equiv> 112"
abbreviation (input) tcl_aux_sym__id_immediate_repeat1 :: TSSymbol where "tcl_aux_sym__id_immediate_repeat1 \<equiv> 113"
abbreviation (input) tcl_aux_sym_braced_word_repeat1 :: TSSymbol where "tcl_aux_sym_braced_word_repeat1 \<equiv> 114"
abbreviation (input) tcl_aux_sym_braced_word_repeat2 :: TSSymbol where "tcl_aux_sym_braced_word_repeat2 \<equiv> 115"
abbreviation (input) tcl_aux_sym_braced_word_simple_repeat1 :: TSSymbol where "tcl_aux_sym_braced_word_simple_repeat1 \<equiv> 116"
abbreviation (input) tcl_aux_sym_arguments_repeat1 :: TSSymbol where "tcl_aux_sym_arguments_repeat1 \<equiv> 117"
abbreviation (input) tcl_aux_sym_if_repeat1 :: TSSymbol where "tcl_aux_sym_if_repeat1 \<equiv> 118"
abbreviation (input) tcl_aux_sym_quoted_word_repeat1 :: TSSymbol where "tcl_aux_sym_quoted_word_repeat1 \<equiv> 119"

section \<open>The characters of a word\<close>

definition tcl_sym_simple_word_character_set_1 :: "TSCharacterRange list" where
  "tcl_sym_simple_word_character_set_1 = [\<lparr>range_start = 0, range_end = 8\<rparr>,
    \<lparr>range_start = 14, range_end = 31\<rparr>, \<lparr>range_start = 35, range_end =
    35\<rparr>, \<lparr>range_start = 37, range_end = 39\<rparr>, \<lparr>range_start = 42,
    range_end = 58\<rparr>, \<lparr>range_start = 60, range_end = 90\<rparr>, \<lparr>range_start
    = 94, range_end = 122\<rparr>, \<lparr>range_start = 124, range_end = 124\<rparr>,
    \<lparr>range_start = 126, range_end = 1114111\<rparr>]"

abbreviation tcl_in_simple_word :: "codepoint \<Rightarrow> bool" where
  "tcl_in_simple_word la \<equiv> set_contains tcl_sym_simple_word_character_set_1 9 la = Some True"

section \<open>The cases of the switch\<close>

definition tcl_lex_0 :: "bool \<Rightarrow> codepoint \<Rightarrow> lex_case" where
  "tcl_lex_0 eof la = (None,
      if eof then ADVANCE 82 else
      case ADVANCE_MAP [(CH_BANG, 120), (CH_DQUOTE, 172), (CH_HASH, 88), (CH_DOLLAR, 102),
        (CH_PERCENT, 128), (CH_AMP, 152), (CH_LPAREN, 100), (CH_RPAREN, 101), (CH_STAR, 125),
        (CH_PLUS, 118), (CH_MINUS, 116), (CH_SLASH, 124), (CH_COLON, 165), (CH_SEMICOLON, 87),
        (CH_LT, 135), (CH_EQUALS, 180), (CH_GT, 133), (CH_QMARK, 163), (70, 196), (CH_LBRACKET,
        177)] la of Some st \<Rightarrow> ADVANCE st | None \<Rightarrow> (
      if la = CH_BACKSLASH then SKIP 79 else
      if la = CH_RBRACKET then ADVANCE 178 else
      if la = CH_CARET then ADVANCE 155 else
      if la = CH_e then ADVANCE 186 else
      if la = CH_f then ADVANCE 185 else
      if la = CH_i then ADVANCE 190 else
      if la = CH_n then ADVANCE 182 else
      if la = CH_o then ADVANCE 191 else
      if la = CH_LBRACE then ADVANCE 104 else
      if la = CH_BAR then ADVANCE 156 else
      if la = CH_RBRACE then ADVANCE 109 else
      if la = 126 then ADVANCE 119 else
      if la = 84 \<or> la = CH_t then ADVANCE 199 else
      if la = CH_0 \<or> la = 49 then ADVANCE 110 else
      if (CH_TAB \<le> la \<and> la \<le> CH_CR) \<or> la = CH_SPACE then SKIP 81 else
      if 50 \<le> la \<and> la \<le> CH_9 then ADVANCE 110 else
      if la \<noteq> 0 then ADVANCE 205 else END_STATE))"

definition tcl_lex_1 :: "bool \<Rightarrow> codepoint \<Rightarrow> lex_case" where
  "tcl_lex_1 eof la = (None,
      case ADVANCE_MAP [(CH_LF, 83), (CH_DQUOTE, 172), (CH_HASH, 88), (CH_DOLLAR, 102),
        (CH_SEMICOLON, 87), (CH_LBRACKET, 177), (CH_BACKSLASH, 2), (CH_e, 187), (CH_LBRACE, 104),
        (CH_RBRACE, 109)] la of Some st \<Rightarrow> ADVANCE st | None \<Rightarrow> (
      if (CH_TAB \<le> la \<and> la \<le> CH_CR) \<or> la = CH_SPACE then SKIP 1 else
      if la \<noteq> 0 \<and> (la < CH_SPACE \<or> CH_DOLLAR < la) \<and> la \<noteq> CH_LPAREN
        \<and> la \<noteq> CH_RPAREN \<and> (la < CH_LBRACKET \<or> CH_RBRACKET < la) then
        ADVANCE 205 else END_STATE))"

definition tcl_lex_2 :: "bool \<Rightarrow> codepoint \<Rightarrow> lex_case" where
  "tcl_lex_2 eof la = (None,
      if la = CH_LF then SKIP 1 else
      if la = CH_CR then ADVANCE 173 else
      if la \<noteq> 0 then ADVANCE 173 else END_STATE)"

definition tcl_lex_3 :: "bool \<Rightarrow> codepoint \<Rightarrow> lex_case" where
  "tcl_lex_3 eof la = (None,
      if la = CH_LF then SKIP 39 else
      if la = CH_CR then ADVANCE 173 else
      if la \<noteq> 0 then ADVANCE 173 else END_STATE)"

definition tcl_lex_4 :: "bool \<Rightarrow> codepoint \<Rightarrow> lex_case" where
  "tcl_lex_4 eof la = (None,
      if la = CH_LF then SKIP 37 else END_STATE)"

definition tcl_lex_5 :: "bool \<Rightarrow> codepoint \<Rightarrow> lex_case" where
  "tcl_lex_5 eof la = (None,
      if la = CH_LF then SKIP 37 else
      if la = CH_CR then SKIP 4 else END_STATE)"

definition tcl_lex_6 :: "bool \<Rightarrow> codepoint \<Rightarrow> lex_case" where
  "tcl_lex_6 eof la = (None,
      if la = CH_LF then SKIP 38 else END_STATE)"

definition tcl_lex_7 :: "bool \<Rightarrow> codepoint \<Rightarrow> lex_case" where
  "tcl_lex_7 eof la = (None,
      if la = CH_LF then SKIP 38 else
      if la = CH_CR then SKIP 6 else END_STATE)"

definition tcl_lex_8 :: "bool \<Rightarrow> codepoint \<Rightarrow> lex_case" where
  "tcl_lex_8 eof la = (None,
      if la = CH_LF then SKIP 34 else
      if la = CH_CR then ADVANCE 173 else
      if la \<noteq> 0 then ADVANCE 173 else END_STATE)"

definition tcl_lex_9 :: "bool \<Rightarrow> codepoint \<Rightarrow> lex_case" where
  "tcl_lex_9 eof la = (None,
      if la = CH_LF then SKIP 30 else
      if la = CH_CR then ADVANCE 173 else
      if la \<noteq> 0 then ADVANCE 173 else END_STATE)"

definition tcl_lex_10 :: "bool \<Rightarrow> codepoint \<Rightarrow> lex_case" where
  "tcl_lex_10 eof la = (None,
      if la = CH_LF then SKIP 47 else
      if la = CH_CR then ADVANCE 173 else
      if la \<noteq> 0 then ADVANCE 173 else END_STATE)"

definition tcl_lex_11 :: "bool \<Rightarrow> codepoint \<Rightarrow> lex_case" where
  "tcl_lex_11 eof la = (None,
      if la = CH_LF then SKIP 48 else
      if la = CH_CR then ADVANCE 173 else
      if la \<noteq> 0 then ADVANCE 173 else END_STATE)"

definition tcl_lex_12 :: "bool \<Rightarrow> codepoint \<Rightarrow> lex_case" where
  "tcl_lex_12 eof la = (None,
      if la = CH_LF then ADVANCE 84 else
      if la = CH_LPAREN then ADVANCE 100 else
      if la = CH_COLON then ADVANCE 54 else
      if la = CH_SEMICOLON then ADVANCE 87 else
      if la = CH_BACKSLASH then SKIP 15 else
      if la = CH_e then ADVANCE 67 else
      if la = CH_f then ADVANCE 66 else
      if la = CH_o then ADVANCE 72 else
      if la = CH_RBRACE then ADVANCE 109 else
      if (CH_TAB \<le> la \<and> la \<le> CH_CR) \<or> la = CH_SPACE then SKIP 13 else END_STATE)"

definition tcl_lex_13 :: "bool \<Rightarrow> codepoint \<Rightarrow> lex_case" where
  "tcl_lex_13 eof la = (None,
      if la = CH_LF then ADVANCE 84 else
      if la = CH_SEMICOLON then ADVANCE 87 else
      if la = CH_BACKSLASH then SKIP 15 else
      if la = CH_e then ADVANCE 67 else
      if la = CH_f then ADVANCE 66 else
      if la = CH_o then ADVANCE 72 else
      if la = CH_RBRACE then ADVANCE 109 else
      if (CH_TAB \<le> la \<and> la \<le> CH_CR) \<or> la = CH_SPACE then SKIP 13 else END_STATE)"

definition tcl_lex_14 :: "bool \<Rightarrow> codepoint \<Rightarrow> lex_case" where
  "tcl_lex_14 eof la = (None,
      if la = CH_LF then SKIP 13 else END_STATE)"

definition tcl_lex_15 :: "bool \<Rightarrow> codepoint \<Rightarrow> lex_case" where
  "tcl_lex_15 eof la = (None,
      if la = CH_LF then SKIP 13 else
      if la = CH_CR then SKIP 14 else END_STATE)"

definition tcl_lex_16 :: "bool \<Rightarrow> codepoint \<Rightarrow> lex_case" where
  "tcl_lex_16 eof la = (None,
      if la = CH_LF then SKIP 46 else END_STATE)"

definition tcl_lex_17 :: "bool \<Rightarrow> codepoint \<Rightarrow> lex_case" where
  "tcl_lex_17 eof la = (None,
      if la = CH_LF then SKIP 46 else
      if la = CH_CR then SKIP 16 else END_STATE)"

definition tcl_lex_18 :: "bool \<Rightarrow> codepoint \<Rightarrow> lex_case" where
  "tcl_lex_18 eof la = (None,
      if la = CH_LF then SKIP 49 else
      if la = CH_CR then ADVANCE 173 else
      if la \<noteq> 0 then ADVANCE 173 else END_STATE)"

definition tcl_lex_19 :: "bool \<Rightarrow> codepoint \<Rightarrow> lex_case" where
  "tcl_lex_19 eof la = (None,
      if la = CH_LF then SKIP 60 else END_STATE)"

definition tcl_lex_20 :: "bool \<Rightarrow> codepoint \<Rightarrow> lex_case" where
  "tcl_lex_20 eof la = (None,
      if la = CH_LF then SKIP 60 else
      if la = CH_CR then SKIP 19 else END_STATE)"

definition tcl_lex_21 :: "bool \<Rightarrow> codepoint \<Rightarrow> lex_case" where
  "tcl_lex_21 eof la = (None,
      if la = CH_LF then SKIP 51 else END_STATE)"

definition tcl_lex_22 :: "bool \<Rightarrow> codepoint \<Rightarrow> lex_case" where
  "tcl_lex_22 eof la = (None,
      if la = CH_LF then SKIP 51 else
      if la = CH_CR then SKIP 21 else END_STATE)"

definition tcl_lex_23 :: "bool \<Rightarrow> codepoint \<Rightarrow> lex_case" where
  "tcl_lex_23 eof la = (None,
      if la = CH_LF then SKIP 61 else END_STATE)"

definition tcl_lex_24 :: "bool \<Rightarrow> codepoint \<Rightarrow> lex_case" where
  "tcl_lex_24 eof la = (None,
      if la = CH_LF then SKIP 61 else
      if la = CH_CR then SKIP 23 else END_STATE)"

definition tcl_lex_25 :: "bool \<Rightarrow> codepoint \<Rightarrow> lex_case" where
  "tcl_lex_25 eof la = (None,
      if la = CH_LF then SKIP 52 else END_STATE)"

definition tcl_lex_26 :: "bool \<Rightarrow> codepoint \<Rightarrow> lex_case" where
  "tcl_lex_26 eof la = (None,
      if la = CH_LF then SKIP 52 else
      if la = CH_CR then SKIP 25 else END_STATE)"

definition tcl_lex_27 :: "bool \<Rightarrow> codepoint \<Rightarrow> lex_case" where
  "tcl_lex_27 eof la = (None,
      if la = CH_LF then SKIP 33 else
      if la = CH_CR then ADVANCE 173 else
      if la \<noteq> 0 then ADVANCE 173 else END_STATE)"

definition tcl_lex_28 :: "bool \<Rightarrow> codepoint \<Rightarrow> lex_case" where
  "tcl_lex_28 eof la = (None,
      case ADVANCE_MAP [(CH_LF, 85), (CH_DQUOTE, 172), (CH_DOLLAR, 102), (CH_LPAREN, 100),
        (CH_COLON, 179), (CH_SEMICOLON, 87), (CH_LBRACKET, 177), (CH_BACKSLASH, 9), (CH_LBRACE,
        104), (CH_RBRACE, 109)] la of Some st \<Rightarrow> ADVANCE st | None \<Rightarrow> (
      if (CH_TAB \<le> la \<and> la \<le> CH_CR) \<or> la = CH_SPACE then SKIP 30 else
      if la \<noteq> 0 \<and> (la < CH_SPACE \<or> CH_DQUOTE < la) \<and> la \<noteq> CH_LPAREN
        \<and> la \<noteq> CH_RPAREN \<and> (la < CH_LBRACKET \<or> CH_RBRACKET < la) then
        ADVANCE 205 else END_STATE))"

definition tcl_lex_29 :: "bool \<Rightarrow> codepoint \<Rightarrow> lex_case" where
  "tcl_lex_29 eof la = (None,
      case ADVANCE_MAP [(CH_LF, 85), (CH_DQUOTE, 172), (CH_DOLLAR, 102), (CH_LPAREN, 100),
        (CH_SEMICOLON, 87), (CH_LBRACKET, 177), (CH_BACKSLASH, 9), (CH_LBRACE, 104), (CH_RBRACE,
        109)] la of Some st \<Rightarrow> ADVANCE st | None \<Rightarrow> (
      if (CH_TAB \<le> la \<and> la \<le> CH_CR) \<or> la = CH_SPACE then SKIP 30 else
      if la \<noteq> 0 \<and> (la < CH_SPACE \<or> CH_DQUOTE < la) \<and> la \<noteq> CH_LPAREN
        \<and> la \<noteq> CH_RPAREN \<and> (la < CH_LBRACKET \<or> CH_RBRACKET < la) then
        ADVANCE 205 else END_STATE))"

definition tcl_lex_30 :: "bool \<Rightarrow> codepoint \<Rightarrow> lex_case" where
  "tcl_lex_30 eof la = (None,
      case ADVANCE_MAP [(CH_LF, 85), (CH_DQUOTE, 172), (CH_DOLLAR, 102), (CH_SEMICOLON, 87),
        (CH_LBRACKET, 177), (CH_BACKSLASH, 9), (CH_LBRACE, 104), (CH_RBRACE, 109)] la of Some st
        \<Rightarrow> ADVANCE st | None \<Rightarrow> (
      if (CH_TAB \<le> la \<and> la \<le> CH_CR) \<or> la = CH_SPACE then SKIP 30 else
      if la \<noteq> 0 \<and> (la < CH_SPACE \<or> CH_DQUOTE < la) \<and> la \<noteq> CH_LPAREN
        \<and> la \<noteq> CH_RPAREN \<and> (la < CH_LBRACKET \<or> CH_RBRACKET < la) then
        ADVANCE 205 else END_STATE))"

definition tcl_lex_31 :: "bool \<Rightarrow> codepoint \<Rightarrow> lex_case" where
  "tcl_lex_31 eof la = (None,
      case ADVANCE_MAP [(CH_LF, 86), (CH_DQUOTE, 172), (CH_DOLLAR, 102), (CH_LPAREN, 100),
        (CH_COLON, 179), (CH_SEMICOLON, 87), (CH_LBRACKET, 177), (CH_BACKSLASH, 27), (CH_LBRACE,
        103), (CH_RBRACE, 109)] la of Some st \<Rightarrow> ADVANCE st | None \<Rightarrow> (
      if (CH_TAB \<le> la \<and> la \<le> CH_CR) \<or> la = CH_SPACE then SKIP 33 else
      if la \<noteq> 0 \<and> (la < CH_SPACE \<or> CH_DQUOTE < la) \<and> la \<noteq> CH_LPAREN
        \<and> la \<noteq> CH_RPAREN \<and> (la < CH_LBRACKET \<or> CH_RBRACKET < la) then
        ADVANCE 205 else END_STATE))"

definition tcl_lex_32 :: "bool \<Rightarrow> codepoint \<Rightarrow> lex_case" where
  "tcl_lex_32 eof la = (None,
      case ADVANCE_MAP [(CH_LF, 86), (CH_DQUOTE, 172), (CH_DOLLAR, 102), (CH_LPAREN, 100),
        (CH_SEMICOLON, 87), (CH_LBRACKET, 177), (CH_BACKSLASH, 27), (CH_LBRACE, 103), (CH_RBRACE,
        109)] la of Some st \<Rightarrow> ADVANCE st | None \<Rightarrow> (
      if (CH_TAB \<le> la \<and> la \<le> CH_CR) \<or> la = CH_SPACE then SKIP 33 else
      if la \<noteq> 0 \<and> (la < CH_SPACE \<or> CH_DQUOTE < la) \<and> la \<noteq> CH_LPAREN
        \<and> la \<noteq> CH_RPAREN \<and> (la < CH_LBRACKET \<or> CH_RBRACKET < la) then
        ADVANCE 205 else END_STATE))"

definition tcl_lex_33 :: "bool \<Rightarrow> codepoint \<Rightarrow> lex_case" where
  "tcl_lex_33 eof la = (None,
      case ADVANCE_MAP [(CH_LF, 86), (CH_DQUOTE, 172), (CH_DOLLAR, 102), (CH_SEMICOLON, 87),
        (CH_LBRACKET, 177), (CH_BACKSLASH, 27), (CH_LBRACE, 103), (CH_RBRACE, 109)] la of Some st
        \<Rightarrow> ADVANCE st | None \<Rightarrow> (
      if (CH_TAB \<le> la \<and> la \<le> CH_CR) \<or> la = CH_SPACE then SKIP 33 else
      if la \<noteq> 0 \<and> (la < CH_SPACE \<or> CH_DQUOTE < la) \<and> la \<noteq> CH_LPAREN
        \<and> la \<noteq> CH_RPAREN \<and> (la < CH_LBRACKET \<or> CH_RBRACKET < la) then
        ADVANCE 205 else END_STATE))"

definition tcl_lex_34 :: "bool \<Rightarrow> codepoint \<Rightarrow> lex_case" where
  "tcl_lex_34 eof la = (None,
      case ADVANCE_MAP [(CH_BANG, 120), (CH_DQUOTE, 172), (CH_DOLLAR, 102), (CH_LPAREN, 114),
        (CH_PLUS, 118), (CH_MINUS, 116), (CH_LBRACKET, 177), (CH_BACKSLASH, 8), (CH_LBRACE, 103),
        (126, 119), (70, 196), (CH_f, 196), (84, 199), (CH_t, 199), (CH_0, 110), (49, 110)] la of
        Some st \<Rightarrow> ADVANCE st | None \<Rightarrow> (
      if (CH_TAB \<le> la \<and> la \<le> CH_CR) \<or> la = CH_SPACE then SKIP 34 else
      if 50 \<le> la \<and> la \<le> CH_9 then ADVANCE 110 else
      if la \<noteq> 0 \<and> la \<noteq> CH_LPAREN \<and> la \<noteq> CH_RPAREN \<and> la
        \<noteq> CH_SEMICOLON \<and> (la < CH_LBRACKET \<or> CH_RBRACKET < la) \<and> la \<noteq>
        CH_RBRACE \<and> la \<noteq> 126 then ADVANCE 205 else END_STATE))"

definition tcl_lex_35 :: "bool \<Rightarrow> codepoint \<Rightarrow> lex_case" where
  "tcl_lex_35 eof la = (None,
      case ADVANCE_MAP [(CH_BANG, 57), (CH_PERCENT, 127), (CH_AMP, 153), (CH_LPAREN, 100),
        (CH_RPAREN, 101), (CH_STAR, 126), (CH_PLUS, 117), (CH_MINUS, 115), (CH_SLASH, 123),
        (CH_COLON, 166), (CH_LT, 136), (CH_EQUALS, 58), (CH_GT, 134), (CH_QMARK, 162)] la of Some
        st \<Rightarrow> ADVANCE st | None \<Rightarrow> (
      if la = CH_BACKSLASH then SKIP 5 else
      if la = CH_RBRACKET then ADVANCE 178 else
      if la = CH_CARET then ADVANCE 154 else
      if la = CH_e then ADVANCE 68 else
      if la = CH_f then ADVANCE 66 else
      if la = CH_i then ADVANCE 71 else
      if la = CH_n then ADVANCE 63 else
      if la = CH_o then ADVANCE 72 else
      if la = CH_LBRACE then ADVANCE 103 else
      if la = CH_BAR then ADVANCE 157 else
      if la = CH_RBRACE then ADVANCE 109 else
      if (CH_TAB \<le> la \<and> la \<le> CH_CR) \<or> la = CH_SPACE then SKIP 37 else
        END_STATE))"

definition tcl_lex_36 :: "bool \<Rightarrow> codepoint \<Rightarrow> lex_case" where
  "tcl_lex_36 eof la = (None,
      case ADVANCE_MAP [(CH_BANG, 57), (CH_PERCENT, 127), (CH_AMP, 153), (CH_LPAREN, 100),
        (CH_RPAREN, 101), (CH_STAR, 126), (CH_PLUS, 117), (CH_MINUS, 115), (CH_SLASH, 123),
        (CH_COLON, 164), (CH_LT, 136), (CH_EQUALS, 58), (CH_GT, 134), (CH_QMARK, 162)] la of Some
        st \<Rightarrow> ADVANCE st | None \<Rightarrow> (
      if la = CH_BACKSLASH then SKIP 7 else
      if la = CH_RBRACKET then ADVANCE 178 else
      if la = CH_CARET then ADVANCE 154 else
      if la = CH_e then ADVANCE 74 else
      if la = CH_i then ADVANCE 71 else
      if la = CH_n then ADVANCE 63 else
      if la = CH_BAR then ADVANCE 157 else
      if la = CH_RBRACE then ADVANCE 109 else
      if (CH_TAB \<le> la \<and> la \<le> CH_CR) \<or> la = CH_SPACE then SKIP 38 else
        END_STATE))"

definition tcl_lex_37 :: "bool \<Rightarrow> codepoint \<Rightarrow> lex_case" where
  "tcl_lex_37 eof la = (None,
      case ADVANCE_MAP [(CH_BANG, 57), (CH_PERCENT, 127), (CH_AMP, 153), (CH_RPAREN, 101),
        (CH_STAR, 126), (CH_PLUS, 117), (CH_MINUS, 115), (CH_SLASH, 123), (CH_COLON, 164),
        (CH_LT, 136), (CH_EQUALS, 58), (CH_GT, 134), (CH_QMARK, 162)] la of Some st \<Rightarrow>
        ADVANCE st | None \<Rightarrow> (
      if la = CH_BACKSLASH then SKIP 5 else
      if la = CH_RBRACKET then ADVANCE 178 else
      if la = CH_CARET then ADVANCE 154 else
      if la = CH_e then ADVANCE 68 else
      if la = CH_f then ADVANCE 66 else
      if la = CH_i then ADVANCE 71 else
      if la = CH_n then ADVANCE 63 else
      if la = CH_o then ADVANCE 72 else
      if la = CH_LBRACE then ADVANCE 103 else
      if la = CH_BAR then ADVANCE 157 else
      if la = CH_RBRACE then ADVANCE 109 else
      if (CH_TAB \<le> la \<and> la \<le> CH_CR) \<or> la = CH_SPACE then SKIP 37 else
        END_STATE))"

definition tcl_lex_38 :: "bool \<Rightarrow> codepoint \<Rightarrow> lex_case" where
  "tcl_lex_38 eof la = (None,
      case ADVANCE_MAP [(CH_BANG, 57), (CH_PERCENT, 127), (CH_AMP, 153), (CH_RPAREN, 101),
        (CH_STAR, 126), (CH_PLUS, 117), (CH_MINUS, 115), (CH_SLASH, 123), (CH_COLON, 164),
        (CH_LT, 136), (CH_EQUALS, 58), (CH_GT, 134), (CH_QMARK, 162)] la of Some st \<Rightarrow>
        ADVANCE st | None \<Rightarrow> (
      if la = CH_BACKSLASH then SKIP 7 else
      if la = CH_RBRACKET then ADVANCE 178 else
      if la = CH_CARET then ADVANCE 154 else
      if la = CH_e then ADVANCE 74 else
      if la = CH_i then ADVANCE 71 else
      if la = CH_n then ADVANCE 63 else
      if la = CH_BAR then ADVANCE 157 else
      if la = CH_RBRACE then ADVANCE 109 else
      if (CH_TAB \<le> la \<and> la \<le> CH_CR) \<or> la = CH_SPACE then SKIP 38 else
        END_STATE))"

definition tcl_lex_39 :: "bool \<Rightarrow> codepoint \<Rightarrow> lex_case" where
  "tcl_lex_39 eof la = (None,
      case ADVANCE_MAP [(CH_DQUOTE, 172), (CH_HASH, 88), (CH_DOLLAR, 102), (CH_LBRACKET, 177),
        (CH_BACKSLASH, 3), (CH_e, 187), (CH_LBRACE, 104), (CH_RBRACE, 109)] la of Some st
        \<Rightarrow> ADVANCE st | None \<Rightarrow> (
      if (CH_TAB \<le> la \<and> la \<le> CH_CR) \<or> la = CH_SPACE then SKIP 39 else
      if la \<noteq> 0 \<and> (la < CH_SPACE \<or> CH_DOLLAR < la) \<and> la \<noteq> CH_LPAREN
        \<and> la \<noteq> CH_RPAREN \<and> la \<noteq> CH_SEMICOLON \<and> (la < CH_LBRACKET
        \<or> CH_RBRACKET < la) then ADVANCE 205 else END_STATE))"

definition tcl_lex_40 :: "bool \<Rightarrow> codepoint \<Rightarrow> lex_case" where
  "tcl_lex_40 eof la = (None,
      case ADVANCE_MAP [(CH_DQUOTE, 172), (CH_DOLLAR, 102), (CH_LPAREN, 100), (CH_COLON, 179),
        (CH_LBRACKET, 177), (CH_BACKSLASH, 10), (CH_RBRACKET, 178), (CH_LBRACE, 104)] la of Some
        st \<Rightarrow> ADVANCE st | None \<Rightarrow> (
      if (CH_TAB \<le> la \<and> la \<le> CH_CR) \<or> la = CH_SPACE then SKIP 47 else
      if la \<noteq> 0 \<and> (la < CH_SPACE \<or> CH_DQUOTE < la) \<and> la \<noteq> CH_LPAREN
        \<and> la \<noteq> CH_RPAREN \<and> la \<noteq> CH_COLON \<and> la \<noteq> CH_SEMICOLON
        \<and> la \<noteq> CH_RBRACE then ADVANCE 205 else END_STATE))"

definition tcl_lex_41 :: "bool \<Rightarrow> codepoint \<Rightarrow> lex_case" where
  "tcl_lex_41 eof la = (None,
      case ADVANCE_MAP [(CH_DQUOTE, 172), (CH_DOLLAR, 102), (CH_LPAREN, 100), (CH_COLON, 179),
        (CH_LBRACKET, 177), (CH_BACKSLASH, 11), (CH_RBRACKET, 178), (CH_LBRACE, 103), (CH_RBRACE,
        109)] la of Some st \<Rightarrow> ADVANCE st | None \<Rightarrow> (
      if (CH_TAB \<le> la \<and> la \<le> CH_CR) \<or> la = CH_SPACE then SKIP 48 else
      if la \<noteq> 0 \<and> (la < CH_SPACE \<or> CH_DQUOTE < la) \<and> la \<noteq> CH_LPAREN
        \<and> la \<noteq> CH_RPAREN \<and> la \<noteq> CH_COLON \<and> la \<noteq> CH_SEMICOLON
        then ADVANCE 205 else END_STATE))"

definition tcl_lex_42 :: "bool \<Rightarrow> codepoint \<Rightarrow> lex_case" where
  "tcl_lex_42 eof la = (None,
      if la = CH_DQUOTE then ADVANCE 172 else
      if la = CH_DOLLAR then ADVANCE 102 else
      if la = CH_LPAREN then ADVANCE 100 else
      if la = CH_COLON then ADVANCE 175 else
      if la = CH_LBRACKET then ADVANCE 177 else
      if la = CH_BACKSLASH then ADVANCE 18 else
      if (CH_TAB \<le> la \<and> la \<le> CH_CR) \<or> la = CH_SPACE then ADVANCE 174 else
      if la \<noteq> 0 \<and> (la < CH_LBRACKET \<or> CH_RBRACKET < la) then ADVANCE 176 else
        END_STATE)"

definition tcl_lex_43 :: "bool \<Rightarrow> codepoint \<Rightarrow> lex_case" where
  "tcl_lex_43 eof la = (None,
      if la = CH_DQUOTE then ADVANCE 172 else
      if la = CH_DOLLAR then ADVANCE 102 else
      if la = CH_LPAREN then ADVANCE 100 else
      if la = CH_LBRACKET then ADVANCE 177 else
      if la = CH_BACKSLASH then ADVANCE 10 else
      if la = CH_RBRACKET then ADVANCE 178 else
      if la = CH_LBRACE then ADVANCE 104 else
      if (CH_TAB \<le> la \<and> la \<le> CH_CR) \<or> la = CH_SPACE then SKIP 47 else
      if la \<noteq> 0 \<and> (la < CH_SPACE \<or> CH_DQUOTE < la) \<and> la \<noteq> CH_LPAREN
        \<and> la \<noteq> CH_RPAREN \<and> la \<noteq> CH_SEMICOLON \<and> la \<noteq> CH_RBRACE
        then ADVANCE 205 else END_STATE)"

definition tcl_lex_44 :: "bool \<Rightarrow> codepoint \<Rightarrow> lex_case" where
  "tcl_lex_44 eof la = (None,
      case ADVANCE_MAP [(CH_DQUOTE, 172), (CH_DOLLAR, 102), (CH_LPAREN, 100), (CH_LBRACKET, 177),
        (CH_BACKSLASH, 11), (CH_RBRACKET, 178), (CH_LBRACE, 103), (CH_RBRACE, 109)] la of Some st
        \<Rightarrow> ADVANCE st | None \<Rightarrow> (
      if (CH_TAB \<le> la \<and> la \<le> CH_CR) \<or> la = CH_SPACE then SKIP 48 else
      if la \<noteq> 0 \<and> (la < CH_SPACE \<or> CH_DQUOTE < la) \<and> la \<noteq> CH_LPAREN
        \<and> la \<noteq> CH_RPAREN \<and> la \<noteq> CH_SEMICOLON then ADVANCE 205 else
        END_STATE))"

definition tcl_lex_45 :: "bool \<Rightarrow> codepoint \<Rightarrow> lex_case" where
  "tcl_lex_45 eof la = (None,
      if la = CH_DQUOTE then ADVANCE 172 else
      if la = CH_DOLLAR then ADVANCE 102 else
      if la = CH_LPAREN then ADVANCE 100 else
      if la = CH_LBRACKET then ADVANCE 177 else
      if la = CH_BACKSLASH then ADVANCE 18 else
      if (CH_TAB \<le> la \<and> la \<le> CH_CR) \<or> la = CH_SPACE then ADVANCE 174 else
      if la \<noteq> 0 \<and> (la < CH_LBRACKET \<or> CH_RBRACKET < la) then ADVANCE 176 else
        END_STATE)"

definition tcl_lex_46 :: "bool \<Rightarrow> codepoint \<Rightarrow> lex_case" where
  "tcl_lex_46 eof la = (None,
      if la = CH_DQUOTE then ADVANCE 172 else
      if la = CH_DOLLAR then ADVANCE 102 else
      if la = CH_LPAREN then ADVANCE 114 else
      if la = CH_LBRACKET then ADVANCE 177 else
      if la = CH_BACKSLASH then SKIP 17 else
      if la = CH_LBRACE then ADVANCE 103 else
      if la = CH_PLUS \<or> la = CH_MINUS then ADVANCE 202 else
      if la = 70 \<or> la = CH_f then ADVANCE 196 else
      if la = 84 \<or> la = CH_t then ADVANCE 199 else
      if la = CH_0 \<or> la = 49 then ADVANCE 110 else
      if (CH_TAB \<le> la \<and> la \<le> CH_CR) \<or> la = CH_SPACE then SKIP 46 else
      if 50 \<le> la \<and> la \<le> CH_9 then ADVANCE 110 else
      if la \<noteq> 0 \<and> (la < CH_SPACE \<or> CH_DQUOTE < la) \<and> la \<noteq> CH_LPAREN
        \<and> la \<noteq> CH_RPAREN \<and> la \<noteq> CH_SEMICOLON \<and> (la < CH_LBRACKET
        \<or> CH_RBRACKET < la) \<and> la \<noteq> CH_RBRACE then ADVANCE 205 else END_STATE)"

definition tcl_lex_47 :: "bool \<Rightarrow> codepoint \<Rightarrow> lex_case" where
  "tcl_lex_47 eof la = (None,
      if la = CH_DQUOTE then ADVANCE 172 else
      if la = CH_DOLLAR then ADVANCE 102 else
      if la = CH_LBRACKET then ADVANCE 177 else
      if la = CH_BACKSLASH then ADVANCE 10 else
      if la = CH_RBRACKET then ADVANCE 178 else
      if la = CH_LBRACE then ADVANCE 104 else
      if (CH_TAB \<le> la \<and> la \<le> CH_CR) \<or> la = CH_SPACE then SKIP 47 else
      if la \<noteq> 0 \<and> (la < CH_SPACE \<or> CH_DQUOTE < la) \<and> la \<noteq> CH_LPAREN
        \<and> la \<noteq> CH_RPAREN \<and> la \<noteq> CH_SEMICOLON \<and> la \<noteq> CH_RBRACE
        then ADVANCE 205 else END_STATE)"

definition tcl_lex_48 :: "bool \<Rightarrow> codepoint \<Rightarrow> lex_case" where
  "tcl_lex_48 eof la = (None,
      if la = CH_DQUOTE then ADVANCE 172 else
      if la = CH_DOLLAR then ADVANCE 102 else
      if la = CH_LBRACKET then ADVANCE 177 else
      if la = CH_BACKSLASH then ADVANCE 11 else
      if la = CH_RBRACKET then ADVANCE 178 else
      if la = CH_LBRACE then ADVANCE 103 else
      if la = CH_RBRACE then ADVANCE 109 else
      if (CH_TAB \<le> la \<and> la \<le> CH_CR) \<or> la = CH_SPACE then SKIP 48 else
      if la \<noteq> 0 \<and> (la < CH_SPACE \<or> CH_DQUOTE < la) \<and> la \<noteq> CH_LPAREN
        \<and> la \<noteq> CH_RPAREN \<and> la \<noteq> CH_SEMICOLON then ADVANCE 205 else
        END_STATE)"

definition tcl_lex_49 :: "bool \<Rightarrow> codepoint \<Rightarrow> lex_case" where
  "tcl_lex_49 eof la = (None,
      if la = CH_DQUOTE then ADVANCE 172 else
      if la = CH_DOLLAR then ADVANCE 102 else
      if la = CH_LBRACKET then ADVANCE 177 else
      if la = CH_BACKSLASH then ADVANCE 18 else
      if (CH_TAB \<le> la \<and> la \<le> CH_CR) \<or> la = CH_SPACE then ADVANCE 174 else
      if la \<noteq> 0 \<and> (la < CH_LBRACKET \<or> CH_RBRACKET < la) then ADVANCE 176 else
        END_STATE)"

definition tcl_lex_50 :: "bool \<Rightarrow> codepoint \<Rightarrow> lex_case" where
  "tcl_lex_50 eof la = (None,
      if la = CH_DQUOTE then ADVANCE 172 else
      if la = CH_LPAREN then ADVANCE 100 else
      if la = CH_RPAREN then ADVANCE 101 else
      if la = CH_BACKSLASH then SKIP 22 else
      if la = CH_RBRACKET then ADVANCE 178 else
      if la = CH_LBRACE then ADVANCE 103 else
      if la = CH_RBRACE then ADVANCE 109 else
      if (CH_TAB \<le> la \<and> la \<le> CH_CR) \<or> la = CH_SPACE then SKIP 51 else
      if la \<noteq> 0 \<and> (la < CH_SPACE \<or> CH_DQUOTE < la) \<and> la \<noteq> CH_DOLLAR
        \<and> la \<noteq> CH_SEMICOLON \<and> (la < CH_LBRACKET \<or> CH_RBRACKET < la) then
        ADVANCE 205 else END_STATE)"

definition tcl_lex_51 :: "bool \<Rightarrow> codepoint \<Rightarrow> lex_case" where
  "tcl_lex_51 eof la = (None,
      if la = CH_DQUOTE then ADVANCE 172 else
      if la = CH_RPAREN then ADVANCE 101 else
      if la = CH_BACKSLASH then SKIP 22 else
      if la = CH_RBRACKET then ADVANCE 178 else
      if la = CH_LBRACE then ADVANCE 103 else
      if la = CH_RBRACE then ADVANCE 109 else
      if (CH_TAB \<le> la \<and> la \<le> CH_CR) \<or> la = CH_SPACE then SKIP 51 else
      if la \<noteq> 0 \<and> (la < CH_SPACE \<or> CH_DQUOTE < la) \<and> la \<noteq> CH_DOLLAR
        \<and> la \<noteq> CH_LPAREN \<and> la \<noteq> CH_RPAREN \<and> la \<noteq> CH_SEMICOLON
        \<and> (la < CH_LBRACKET \<or> CH_RBRACKET < la) then ADVANCE 205 else END_STATE)"

definition tcl_lex_52 :: "bool \<Rightarrow> codepoint \<Rightarrow> lex_case" where
  "tcl_lex_52 eof la = (None,
      if la = CH_DOLLAR then ADVANCE 102 else
      if la = CH_COLON then ADVANCE 56 else
      if la = CH_BACKSLASH then SKIP 26 else
      if (CH_TAB \<le> la \<and> la \<le> CH_CR) \<or> la = CH_SPACE then SKIP 52 else
      if (CH_A \<le> la \<and> la \<le> CH_Z) \<or> la = CH_UNDERSCORE \<or> (CH_a \<le> la
        \<and> la \<le> CH_z) then ADVANCE 98 else END_STATE)"

definition tcl_lex_53 :: "bool \<Rightarrow> codepoint \<Rightarrow> lex_case" where
  "tcl_lex_53 eof la = (None,
      if la = CH_LPAREN then ADVANCE 100 else
      if la = CH_COLON then ADVANCE 179 else
      if la = CH_BACKSLASH then SKIP 20 else
      if la = CH_LBRACE then ADVANCE 103 else
      if (CH_TAB \<le> la \<and> la \<le> CH_CR) \<or> la = CH_SPACE then SKIP 60 else
      if la \<noteq> 0 \<and> (la < CH_SPACE \<or> CH_DQUOTE < la) \<and> la \<noteq> CH_DOLLAR
        \<and> la \<noteq> CH_LPAREN \<and> la \<noteq> CH_RPAREN \<and> la \<noteq> CH_COLON
        \<and> la \<noteq> CH_SEMICOLON \<and> (la < CH_LBRACKET \<or> CH_RBRACKET < la) \<and>
        la \<noteq> CH_RBRACE then ADVANCE 205 else END_STATE)"

definition tcl_lex_54 :: "bool \<Rightarrow> codepoint \<Rightarrow> lex_case" where
  "tcl_lex_54 eof la = (None,
      if la = CH_COLON then ADVANCE 95 else END_STATE)"

definition tcl_lex_55 :: "bool \<Rightarrow> codepoint \<Rightarrow> lex_case" where
  "tcl_lex_55 eof la = (None,
      if la = CH_COLON then ADVANCE 54 else
      if la = CH_BACKSLASH then SKIP 24 else
      if la = CH_LBRACE then ADVANCE 103 else
      if (CH_TAB \<le> la \<and> la \<le> CH_CR) \<or> la = CH_SPACE then SKIP 61 else
      if (CH_A \<le> la \<and> la \<le> CH_Z) \<or> la = CH_UNDERSCORE \<or> (CH_a \<le> la
        \<and> la \<le> CH_z) then ADVANCE 97 else END_STATE)"

definition tcl_lex_56 :: "bool \<Rightarrow> codepoint \<Rightarrow> lex_case" where
  "tcl_lex_56 eof la = (None,
      if la = CH_COLON then ADVANCE 99 else END_STATE)"

definition tcl_lex_57 :: "bool \<Rightarrow> codepoint \<Rightarrow> lex_case" where
  "tcl_lex_57 eof la = (None,
      if la = CH_EQUALS then ADVANCE 143 else END_STATE)"

definition tcl_lex_58 :: "bool \<Rightarrow> codepoint \<Rightarrow> lex_case" where
  "tcl_lex_58 eof la = (None,
      if la = CH_EQUALS then ADVANCE 141 else END_STATE)"

definition tcl_lex_59 :: "bool \<Rightarrow> codepoint \<Rightarrow> lex_case" where
  "tcl_lex_59 eof la = (None,
      if la = CH_BACKSLASH then ADVANCE 105 else
      if (CH_TAB \<le> la \<and> la \<le> CH_CR) \<or> la = CH_SPACE then ADVANCE 107 else
      if la \<noteq> 0 \<and> la \<noteq> CH_RBRACE then ADVANCE 108 else END_STATE)"

definition tcl_lex_60 :: "bool \<Rightarrow> codepoint \<Rightarrow> lex_case" where
  "tcl_lex_60 eof la = (None,
      if la = CH_BACKSLASH then SKIP 20 else
      if la = CH_LBRACE then ADVANCE 103 else
      if (CH_TAB \<le> la \<and> la \<le> CH_CR) \<or> la = CH_SPACE then SKIP 60 else
      if la \<noteq> 0 \<and> (la < CH_SPACE \<or> CH_DQUOTE < la) \<and> la \<noteq> CH_DOLLAR
        \<and> la \<noteq> CH_LPAREN \<and> la \<noteq> CH_RPAREN \<and> la \<noteq> CH_SEMICOLON
        \<and> (la < CH_LBRACKET \<or> CH_RBRACKET < la) \<and> la \<noteq> CH_RBRACE then
        ADVANCE 205 else END_STATE)"

definition tcl_lex_61 :: "bool \<Rightarrow> codepoint \<Rightarrow> lex_case" where
  "tcl_lex_61 eof la = (None,
      if la = CH_BACKSLASH then SKIP 24 else
      if la = CH_LBRACE then ADVANCE 103 else
      if (CH_TAB \<le> la \<and> la \<le> CH_CR) \<or> la = CH_SPACE then SKIP 61 else END_STATE)"

definition tcl_lex_62 :: "bool \<Rightarrow> codepoint \<Rightarrow> lex_case" where
  "tcl_lex_62 eof la = (None,
      if la = CH_a then ADVANCE 70 else END_STATE)"

definition tcl_lex_63 :: "bool \<Rightarrow> codepoint \<Rightarrow> lex_case" where
  "tcl_lex_63 eof la = (None,
      if la = CH_e then ADVANCE 146 else
      if la = CH_i then ADVANCE 150 else END_STATE)"

definition tcl_lex_64 :: "bool \<Rightarrow> codepoint \<Rightarrow> lex_case" where
  "tcl_lex_64 eof la = (None,
      if la = CH_e then ADVANCE 171 else END_STATE)"

definition tcl_lex_65 :: "bool \<Rightarrow> codepoint \<Rightarrow> lex_case" where
  "tcl_lex_65 eof la = (None,
      if la = CH_f then ADVANCE 168 else END_STATE)"

definition tcl_lex_66 :: "bool \<Rightarrow> codepoint \<Rightarrow> lex_case" where
  "tcl_lex_66 eof la = (None,
      if la = CH_i then ADVANCE 73 else END_STATE)"

definition tcl_lex_67 :: "bool \<Rightarrow> codepoint \<Rightarrow> lex_case" where
  "tcl_lex_67 eof la = (None,
      if la = CH_l then ADVANCE 75 else END_STATE)"

definition tcl_lex_68 :: "bool \<Rightarrow> codepoint \<Rightarrow> lex_case" where
  "tcl_lex_68 eof la = (None,
      if la = CH_l then ADVANCE 75 else
      if la = CH_q then ADVANCE 144 else END_STATE)"

definition tcl_lex_69 :: "bool \<Rightarrow> codepoint \<Rightarrow> lex_case" where
  "tcl_lex_69 eof la = (None,
      if la = CH_l then ADVANCE 76 else END_STATE)"

definition tcl_lex_70 :: "bool \<Rightarrow> codepoint \<Rightarrow> lex_case" where
  "tcl_lex_70 eof la = (None,
      if la = CH_l then ADVANCE 69 else END_STATE)"

definition tcl_lex_71 :: "bool \<Rightarrow> codepoint \<Rightarrow> lex_case" where
  "tcl_lex_71 eof la = (None,
      if la = CH_n then ADVANCE 148 else END_STATE)"

definition tcl_lex_72 :: "bool \<Rightarrow> codepoint \<Rightarrow> lex_case" where
  "tcl_lex_72 eof la = (None,
      if la = CH_n then ADVANCE 90 else END_STATE)"

definition tcl_lex_73 :: "bool \<Rightarrow> codepoint \<Rightarrow> lex_case" where
  "tcl_lex_73 eof la = (None,
      if la = CH_n then ADVANCE 62 else END_STATE)"

definition tcl_lex_74 :: "bool \<Rightarrow> codepoint \<Rightarrow> lex_case" where
  "tcl_lex_74 eof la = (None,
      if la = CH_q then ADVANCE 144 else END_STATE)"

definition tcl_lex_75 :: "bool \<Rightarrow> codepoint \<Rightarrow> lex_case" where
  "tcl_lex_75 eof la = (None,
      if la = CH_s then ADVANCE 64 else END_STATE)"

definition tcl_lex_76 :: "bool \<Rightarrow> codepoint \<Rightarrow> lex_case" where
  "tcl_lex_76 eof la = (None,
      if la = CH_y then ADVANCE 92 else END_STATE)"

definition tcl_lex_77 :: "bool \<Rightarrow> codepoint \<Rightarrow> lex_case" where
  "tcl_lex_77 eof la = (None,
      if la = CH_RBRACE then ADVANCE 94 else END_STATE)"

definition tcl_lex_78 :: "bool \<Rightarrow> codepoint \<Rightarrow> lex_case" where
  "tcl_lex_78 eof la = (None,
      if eof then ADVANCE 82 else
      if la = CH_LF then SKIP 81 else END_STATE)"

definition tcl_lex_79 :: "bool \<Rightarrow> codepoint \<Rightarrow> lex_case" where
  "tcl_lex_79 eof la = (None,
      if eof then ADVANCE 82 else
      if la = CH_LF then SKIP 81 else
      if la = CH_CR then SKIP 78 else END_STATE)"

definition tcl_lex_80 :: "bool \<Rightarrow> codepoint \<Rightarrow> lex_case" where
  "tcl_lex_80 eof la = (None,
      if eof then ADVANCE 82 else
      case ADVANCE_MAP [(CH_LF, 83), (CH_DQUOTE, 172), (CH_HASH, 88), (CH_DOLLAR, 102),
        (CH_SEMICOLON, 87), (CH_LBRACKET, 177), (CH_BACKSLASH, 2), (CH_e, 187), (CH_LBRACE, 104),
        (CH_RBRACE, 109)] la of Some st \<Rightarrow> ADVANCE st | None \<Rightarrow> (
      if (CH_TAB \<le> la \<and> la \<le> CH_CR) \<or> la = CH_SPACE then SKIP 80 else
      if la \<noteq> 0 \<and> (la < CH_SPACE \<or> CH_DOLLAR < la) \<and> la \<noteq> CH_LPAREN
        \<and> la \<noteq> CH_RPAREN \<and> (la < CH_LBRACKET \<or> CH_RBRACKET < la) then
        ADVANCE 205 else END_STATE))"

definition tcl_lex_81 :: "bool \<Rightarrow> codepoint \<Rightarrow> lex_case" where
  "tcl_lex_81 eof la = (None,
      if eof then ADVANCE 82 else
      case ADVANCE_MAP [(CH_BANG, 120), (CH_DQUOTE, 172), (CH_HASH, 88), (CH_DOLLAR, 102),
        (CH_PERCENT, 128), (CH_AMP, 152), (CH_LPAREN, 114), (CH_RPAREN, 101), (CH_STAR, 125),
        (CH_PLUS, 118), (CH_MINUS, 116), (CH_SLASH, 124), (CH_COLON, 167), (CH_SEMICOLON, 87),
        (CH_LT, 135), (CH_EQUALS, 180), (CH_GT, 133), (CH_QMARK, 163), (70, 196), (CH_LBRACKET,
        177)] la of Some st \<Rightarrow> ADVANCE st | None \<Rightarrow> (
      if la = CH_BACKSLASH then SKIP 79 else
      if la = CH_RBRACKET then ADVANCE 178 else
      if la = CH_CARET then ADVANCE 155 else
      if la = CH_e then ADVANCE 186 else
      if la = CH_f then ADVANCE 185 else
      if la = CH_i then ADVANCE 190 else
      if la = CH_n then ADVANCE 182 else
      if la = CH_o then ADVANCE 191 else
      if la = CH_LBRACE then ADVANCE 104 else
      if la = CH_BAR then ADVANCE 156 else
      if la = CH_RBRACE then ADVANCE 109 else
      if la = 126 then ADVANCE 119 else
      if la = 84 \<or> la = CH_t then ADVANCE 199 else
      if la = CH_0 \<or> la = 49 then ADVANCE 110 else
      if (CH_TAB \<le> la \<and> la \<le> CH_CR) \<or> la = CH_SPACE then SKIP 81 else
      if 50 \<le> la \<and> la \<le> CH_9 then ADVANCE 110 else
      if la \<noteq> 0 then ADVANCE 205 else END_STATE))"

definition tcl_lex_82 :: "bool \<Rightarrow> codepoint \<Rightarrow> lex_case" where
  "tcl_lex_82 eof la = (Some ts_builtin_sym_end, END_STATE)"

definition tcl_lex_83 :: "bool \<Rightarrow> codepoint \<Rightarrow> lex_case" where
  "tcl_lex_83 eof la = (Some tcl_anon_sym_LF,
      if la = CH_LF then ADVANCE 83 else
      if la = CH_BACKSLASH then ADVANCE 2 else END_STATE)"

definition tcl_lex_84 :: "bool \<Rightarrow> codepoint \<Rightarrow> lex_case" where
  "tcl_lex_84 eof la = (Some tcl_anon_sym_LF,
      if la = CH_LF then ADVANCE 84 else END_STATE)"

definition tcl_lex_85 :: "bool \<Rightarrow> codepoint \<Rightarrow> lex_case" where
  "tcl_lex_85 eof la = (Some tcl_anon_sym_LF,
      if la = CH_LF then ADVANCE 85 else
      if la = CH_BACKSLASH then ADVANCE 9 else END_STATE)"

definition tcl_lex_86 :: "bool \<Rightarrow> codepoint \<Rightarrow> lex_case" where
  "tcl_lex_86 eof la = (Some tcl_anon_sym_LF,
      if la = CH_LF then ADVANCE 86 else
      if la = CH_BACKSLASH then ADVANCE 27 else END_STATE)"

definition tcl_lex_87 :: "bool \<Rightarrow> codepoint \<Rightarrow> lex_case" where
  "tcl_lex_87 eof la = (Some tcl_anon_sym_SEMI, END_STATE)"

definition tcl_lex_88 :: "bool \<Rightarrow> codepoint \<Rightarrow> lex_case" where
  "tcl_lex_88 eof la = (Some tcl_sym_comment,
      if la = CH_TAB \<or> (CH_VT \<le> la \<and> la \<le> CH_CR) \<or> (CH_SPACE \<le> la \<and>
        la \<le> CH_DQUOTE) \<or> la = CH_DOLLAR \<or> la = CH_LPAREN \<or> la = CH_RPAREN \<or>
        la = CH_SEMICOLON \<or> (CH_LBRACKET \<le> la \<and> la \<le> CH_RBRACKET) \<or> la =
        CH_LBRACE \<or> la = CH_RBRACE then ADVANCE 89 else
      if la \<noteq> 0 \<and> (la < CH_TAB \<or> CH_CR < la) then ADVANCE 88 else END_STATE)"

definition tcl_lex_89 :: "bool \<Rightarrow> codepoint \<Rightarrow> lex_case" where
  "tcl_lex_89 eof la = (Some tcl_sym_comment,
      if la \<noteq> 0 \<and> la \<noteq> CH_LF then ADVANCE 89 else END_STATE)"

definition tcl_lex_90 :: "bool \<Rightarrow> codepoint \<Rightarrow> lex_case" where
  "tcl_lex_90 eof la = (Some tcl_anon_sym_on, END_STATE)"

definition tcl_lex_91 :: "bool \<Rightarrow> codepoint \<Rightarrow> lex_case" where
  "tcl_lex_91 eof la = (Some tcl_anon_sym_on,
      if \<not> eof \<and> tcl_in_simple_word la then ADVANCE 205 else END_STATE)"

definition tcl_lex_92 :: "bool \<Rightarrow> codepoint \<Rightarrow> lex_case" where
  "tcl_lex_92 eof la = (Some tcl_anon_sym_finally, END_STATE)"

definition tcl_lex_93 :: "bool \<Rightarrow> codepoint \<Rightarrow> lex_case" where
  "tcl_lex_93 eof la = (Some tcl_anon_sym_finally,
      if \<not> eof \<and> tcl_in_simple_word la then ADVANCE 205 else END_STATE)"

definition tcl_lex_94 :: "bool \<Rightarrow> codepoint \<Rightarrow> lex_case" where
  "tcl_lex_94 eof la = (Some tcl_sym_unpack, END_STATE)"

definition tcl_lex_95 :: "bool \<Rightarrow> codepoint \<Rightarrow> lex_case" where
  "tcl_lex_95 eof la = (Some tcl_anon_sym_COLON_COLON, END_STATE)"

definition tcl_lex_96 :: "bool \<Rightarrow> codepoint \<Rightarrow> lex_case" where
  "tcl_lex_96 eof la = (Some tcl_anon_sym_COLON_COLON,
      if \<not> eof \<and> tcl_in_simple_word la then ADVANCE 205 else END_STATE)"

definition tcl_lex_97 :: "bool \<Rightarrow> codepoint \<Rightarrow> lex_case" where
  "tcl_lex_97 eof la = (Some tcl_sym__ident_imm,
      if (CH_0 \<le> la \<and> la \<le> CH_9) \<or> (CH_A \<le> la \<and> la \<le> CH_Z) \<or> la
        = CH_UNDERSCORE \<or> (CH_a \<le> la \<and> la \<le> CH_z) then ADVANCE 97 else
        END_STATE)"

definition tcl_lex_98 :: "bool \<Rightarrow> codepoint \<Rightarrow> lex_case" where
  "tcl_lex_98 eof la = (Some tcl_sym__ident,
      if (CH_0 \<le> la \<and> la \<le> CH_9) \<or> (CH_A \<le> la \<and> la \<le> CH_Z) \<or> la
        = CH_UNDERSCORE \<or> (CH_a \<le> la \<and> la \<le> CH_z) then ADVANCE 98 else
        END_STATE)"

definition tcl_lex_99 :: "bool \<Rightarrow> codepoint \<Rightarrow> lex_case" where
  "tcl_lex_99 eof la = (Some tcl_anon_sym_COLON_COLON2, END_STATE)"

definition tcl_lex_100 :: "bool \<Rightarrow> codepoint \<Rightarrow> lex_case" where
  "tcl_lex_100 eof la = (Some tcl_anon_sym_LPAREN, END_STATE)"

definition tcl_lex_101 :: "bool \<Rightarrow> codepoint \<Rightarrow> lex_case" where
  "tcl_lex_101 eof la = (Some tcl_anon_sym_RPAREN, END_STATE)"

definition tcl_lex_102 :: "bool \<Rightarrow> codepoint \<Rightarrow> lex_case" where
  "tcl_lex_102 eof la = (Some tcl_anon_sym_DOLLAR, END_STATE)"

definition tcl_lex_103 :: "bool \<Rightarrow> codepoint \<Rightarrow> lex_case" where
  "tcl_lex_103 eof la = (Some tcl_anon_sym_LBRACE, END_STATE)"

definition tcl_lex_104 :: "bool \<Rightarrow> codepoint \<Rightarrow> lex_case" where
  "tcl_lex_104 eof la = (Some tcl_anon_sym_LBRACE,
      if la = CH_STAR then ADVANCE 77 else END_STATE)"

definition tcl_lex_105 :: "bool \<Rightarrow> codepoint \<Rightarrow> lex_case" where
  "tcl_lex_105 eof la = (Some tcl_aux_sym_variable_substitution_token1,
      if la = CH_LF then ADVANCE 107 else
      if la = CH_CR then ADVANCE 106 else
      if la \<noteq> 0 \<and> la \<noteq> CH_RBRACE then ADVANCE 108 else END_STATE)"

definition tcl_lex_106 :: "bool \<Rightarrow> codepoint \<Rightarrow> lex_case" where
  "tcl_lex_106 eof la = (Some tcl_aux_sym_variable_substitution_token1,
      if la = CH_LF then ADVANCE 107 else
      if la \<noteq> 0 \<and> la \<noteq> CH_RBRACE then ADVANCE 108 else END_STATE)"

definition tcl_lex_107 :: "bool \<Rightarrow> codepoint \<Rightarrow> lex_case" where
  "tcl_lex_107 eof la = (Some tcl_aux_sym_variable_substitution_token1,
      if la = CH_BACKSLASH then ADVANCE 105 else
      if (CH_TAB \<le> la \<and> la \<le> CH_CR) \<or> la = CH_SPACE then ADVANCE 107 else
      if la \<noteq> 0 \<and> la \<noteq> CH_RBRACE then ADVANCE 108 else END_STATE)"

definition tcl_lex_108 :: "bool \<Rightarrow> codepoint \<Rightarrow> lex_case" where
  "tcl_lex_108 eof la = (Some tcl_aux_sym_variable_substitution_token1,
      if la \<noteq> 0 \<and> la \<noteq> CH_RBRACE then ADVANCE 108 else END_STATE)"

definition tcl_lex_109 :: "bool \<Rightarrow> codepoint \<Rightarrow> lex_case" where
  "tcl_lex_109 eof la = (Some tcl_anon_sym_RBRACE, END_STATE)"

definition tcl_lex_110 :: "bool \<Rightarrow> codepoint \<Rightarrow> lex_case" where
  "tcl_lex_110 eof la = (Some tcl_sym_number,
      if la = CH_DOT then ADVANCE 203 else
      if la = 69 \<or> la = CH_e then ADVANCE 195 else
      if CH_0 \<le> la \<and> la \<le> CH_9 then ADVANCE 110 else
      if \<not> eof \<and> tcl_in_simple_word la then ADVANCE 205 else END_STATE)"

definition tcl_lex_111 :: "bool \<Rightarrow> codepoint \<Rightarrow> lex_case" where
  "tcl_lex_111 eof la = (Some tcl_sym_number,
      if la = 69 \<or> la = CH_e then ADVANCE 195 else
      if CH_0 \<le> la \<and> la \<le> CH_9 then ADVANCE 111 else
      if \<not> eof \<and> tcl_in_simple_word la then ADVANCE 205 else END_STATE)"

definition tcl_lex_112 :: "bool \<Rightarrow> codepoint \<Rightarrow> lex_case" where
  "tcl_lex_112 eof la = (Some tcl_sym_number,
      if CH_0 \<le> la \<and> la \<le> CH_9 then ADVANCE 112 else
      if \<not> eof \<and> tcl_in_simple_word la then ADVANCE 205 else END_STATE)"

definition tcl_lex_113 :: "bool \<Rightarrow> codepoint \<Rightarrow> lex_case" where
  "tcl_lex_113 eof la = (Some tcl_sym__boolean,
      if \<not> eof \<and> tcl_in_simple_word la then ADVANCE 205 else END_STATE)"

definition tcl_lex_114 :: "bool \<Rightarrow> codepoint \<Rightarrow> lex_case" where
  "tcl_lex_114 eof la = (Some tcl_anon_sym_LPAREN2, END_STATE)"

definition tcl_lex_115 :: "bool \<Rightarrow> codepoint \<Rightarrow> lex_case" where
  "tcl_lex_115 eof la = (Some tcl_anon_sym_DASH, END_STATE)"

definition tcl_lex_116 :: "bool \<Rightarrow> codepoint \<Rightarrow> lex_case" where
  "tcl_lex_116 eof la = (Some tcl_anon_sym_DASH,
      if CH_0 \<le> la \<and> la \<le> CH_9 then ADVANCE 110 else
      if \<not> eof \<and> tcl_in_simple_word la then ADVANCE 205 else END_STATE)"

definition tcl_lex_117 :: "bool \<Rightarrow> codepoint \<Rightarrow> lex_case" where
  "tcl_lex_117 eof la = (Some tcl_anon_sym_PLUS, END_STATE)"

definition tcl_lex_118 :: "bool \<Rightarrow> codepoint \<Rightarrow> lex_case" where
  "tcl_lex_118 eof la = (Some tcl_anon_sym_PLUS,
      if CH_0 \<le> la \<and> la \<le> CH_9 then ADVANCE 110 else
      if \<not> eof \<and> tcl_in_simple_word la then ADVANCE 205 else END_STATE)"

definition tcl_lex_119 :: "bool \<Rightarrow> codepoint \<Rightarrow> lex_case" where
  "tcl_lex_119 eof la = (Some tcl_anon_sym_TILDE,
      if \<not> eof \<and> tcl_in_simple_word la then ADVANCE 205 else END_STATE)"

definition tcl_lex_120 :: "bool \<Rightarrow> codepoint \<Rightarrow> lex_case" where
  "tcl_lex_120 eof la = (Some tcl_anon_sym_BANG, END_STATE)"

definition tcl_lex_121 :: "bool \<Rightarrow> codepoint \<Rightarrow> lex_case" where
  "tcl_lex_121 eof la = (Some tcl_anon_sym_STAR_STAR, END_STATE)"

definition tcl_lex_122 :: "bool \<Rightarrow> codepoint \<Rightarrow> lex_case" where
  "tcl_lex_122 eof la = (Some tcl_anon_sym_STAR_STAR,
      if \<not> eof \<and> tcl_in_simple_word la then ADVANCE 205 else END_STATE)"

definition tcl_lex_123 :: "bool \<Rightarrow> codepoint \<Rightarrow> lex_case" where
  "tcl_lex_123 eof la = (Some tcl_anon_sym_SLASH, END_STATE)"

definition tcl_lex_124 :: "bool \<Rightarrow> codepoint \<Rightarrow> lex_case" where
  "tcl_lex_124 eof la = (Some tcl_anon_sym_SLASH,
      if \<not> eof \<and> tcl_in_simple_word la then ADVANCE 205 else END_STATE)"

definition tcl_lex_125 :: "bool \<Rightarrow> codepoint \<Rightarrow> lex_case" where
  "tcl_lex_125 eof la = (Some tcl_anon_sym_STAR,
      if la = CH_STAR then ADVANCE 122 else
      if \<not> eof \<and> tcl_in_simple_word la then ADVANCE 205 else END_STATE)"

definition tcl_lex_126 :: "bool \<Rightarrow> codepoint \<Rightarrow> lex_case" where
  "tcl_lex_126 eof la = (Some tcl_anon_sym_STAR,
      if la = CH_STAR then ADVANCE 121 else END_STATE)"

definition tcl_lex_127 :: "bool \<Rightarrow> codepoint \<Rightarrow> lex_case" where
  "tcl_lex_127 eof la = (Some tcl_anon_sym_PERCENT, END_STATE)"

definition tcl_lex_128 :: "bool \<Rightarrow> codepoint \<Rightarrow> lex_case" where
  "tcl_lex_128 eof la = (Some tcl_anon_sym_PERCENT,
      if \<not> eof \<and> tcl_in_simple_word la then ADVANCE 205 else END_STATE)"

definition tcl_lex_129 :: "bool \<Rightarrow> codepoint \<Rightarrow> lex_case" where
  "tcl_lex_129 eof la = (Some tcl_anon_sym_LT_LT, END_STATE)"

definition tcl_lex_130 :: "bool \<Rightarrow> codepoint \<Rightarrow> lex_case" where
  "tcl_lex_130 eof la = (Some tcl_anon_sym_LT_LT,
      if \<not> eof \<and> tcl_in_simple_word la then ADVANCE 205 else END_STATE)"

definition tcl_lex_131 :: "bool \<Rightarrow> codepoint \<Rightarrow> lex_case" where
  "tcl_lex_131 eof la = (Some tcl_anon_sym_GT_GT, END_STATE)"

definition tcl_lex_132 :: "bool \<Rightarrow> codepoint \<Rightarrow> lex_case" where
  "tcl_lex_132 eof la = (Some tcl_anon_sym_GT_GT,
      if \<not> eof \<and> tcl_in_simple_word la then ADVANCE 205 else END_STATE)"

definition tcl_lex_133 :: "bool \<Rightarrow> codepoint \<Rightarrow> lex_case" where
  "tcl_lex_133 eof la = (Some tcl_anon_sym_GT,
      if la = CH_EQUALS then ADVANCE 138 else
      if la = CH_GT then ADVANCE 132 else
      if \<not> eof \<and> tcl_in_simple_word la then ADVANCE 205 else END_STATE)"

definition tcl_lex_134 :: "bool \<Rightarrow> codepoint \<Rightarrow> lex_case" where
  "tcl_lex_134 eof la = (Some tcl_anon_sym_GT,
      if la = CH_EQUALS then ADVANCE 137 else
      if la = CH_GT then ADVANCE 131 else END_STATE)"

definition tcl_lex_135 :: "bool \<Rightarrow> codepoint \<Rightarrow> lex_case" where
  "tcl_lex_135 eof la = (Some tcl_anon_sym_LT,
      if la = CH_LT then ADVANCE 130 else
      if la = CH_EQUALS then ADVANCE 140 else
      if \<not> eof \<and> tcl_in_simple_word la then ADVANCE 205 else END_STATE)"

definition tcl_lex_136 :: "bool \<Rightarrow> codepoint \<Rightarrow> lex_case" where
  "tcl_lex_136 eof la = (Some tcl_anon_sym_LT,
      if la = CH_LT then ADVANCE 129 else
      if la = CH_EQUALS then ADVANCE 139 else END_STATE)"

definition tcl_lex_137 :: "bool \<Rightarrow> codepoint \<Rightarrow> lex_case" where
  "tcl_lex_137 eof la = (Some tcl_anon_sym_GT_EQ, END_STATE)"

definition tcl_lex_138 :: "bool \<Rightarrow> codepoint \<Rightarrow> lex_case" where
  "tcl_lex_138 eof la = (Some tcl_anon_sym_GT_EQ,
      if \<not> eof \<and> tcl_in_simple_word la then ADVANCE 205 else END_STATE)"

definition tcl_lex_139 :: "bool \<Rightarrow> codepoint \<Rightarrow> lex_case" where
  "tcl_lex_139 eof la = (Some tcl_anon_sym_LT_EQ, END_STATE)"

definition tcl_lex_140 :: "bool \<Rightarrow> codepoint \<Rightarrow> lex_case" where
  "tcl_lex_140 eof la = (Some tcl_anon_sym_LT_EQ,
      if \<not> eof \<and> tcl_in_simple_word la then ADVANCE 205 else END_STATE)"

definition tcl_lex_141 :: "bool \<Rightarrow> codepoint \<Rightarrow> lex_case" where
  "tcl_lex_141 eof la = (Some tcl_anon_sym_EQ_EQ, END_STATE)"

definition tcl_lex_142 :: "bool \<Rightarrow> codepoint \<Rightarrow> lex_case" where
  "tcl_lex_142 eof la = (Some tcl_anon_sym_EQ_EQ,
      if \<not> eof \<and> tcl_in_simple_word la then ADVANCE 205 else END_STATE)"

definition tcl_lex_143 :: "bool \<Rightarrow> codepoint \<Rightarrow> lex_case" where
  "tcl_lex_143 eof la = (Some tcl_anon_sym_BANG_EQ, END_STATE)"

definition tcl_lex_144 :: "bool \<Rightarrow> codepoint \<Rightarrow> lex_case" where
  "tcl_lex_144 eof la = (Some tcl_anon_sym_eq, END_STATE)"

definition tcl_lex_145 :: "bool \<Rightarrow> codepoint \<Rightarrow> lex_case" where
  "tcl_lex_145 eof la = (Some tcl_anon_sym_eq,
      if \<not> eof \<and> tcl_in_simple_word la then ADVANCE 205 else END_STATE)"

definition tcl_lex_146 :: "bool \<Rightarrow> codepoint \<Rightarrow> lex_case" where
  "tcl_lex_146 eof la = (Some tcl_anon_sym_ne, END_STATE)"

definition tcl_lex_147 :: "bool \<Rightarrow> codepoint \<Rightarrow> lex_case" where
  "tcl_lex_147 eof la = (Some tcl_anon_sym_ne,
      if \<not> eof \<and> tcl_in_simple_word la then ADVANCE 205 else END_STATE)"

definition tcl_lex_148 :: "bool \<Rightarrow> codepoint \<Rightarrow> lex_case" where
  "tcl_lex_148 eof la = (Some tcl_anon_sym_in, END_STATE)"

definition tcl_lex_149 :: "bool \<Rightarrow> codepoint \<Rightarrow> lex_case" where
  "tcl_lex_149 eof la = (Some tcl_anon_sym_in,
      if \<not> eof \<and> tcl_in_simple_word la then ADVANCE 205 else END_STATE)"

definition tcl_lex_150 :: "bool \<Rightarrow> codepoint \<Rightarrow> lex_case" where
  "tcl_lex_150 eof la = (Some tcl_anon_sym_ni, END_STATE)"

definition tcl_lex_151 :: "bool \<Rightarrow> codepoint \<Rightarrow> lex_case" where
  "tcl_lex_151 eof la = (Some tcl_anon_sym_ni,
      if \<not> eof \<and> tcl_in_simple_word la then ADVANCE 205 else END_STATE)"

definition tcl_lex_152 :: "bool \<Rightarrow> codepoint \<Rightarrow> lex_case" where
  "tcl_lex_152 eof la = (Some tcl_anon_sym_AMP,
      if la = CH_AMP then ADVANCE 159 else
      if \<not> eof \<and> tcl_in_simple_word la then ADVANCE 205 else END_STATE)"

definition tcl_lex_153 :: "bool \<Rightarrow> codepoint \<Rightarrow> lex_case" where
  "tcl_lex_153 eof la = (Some tcl_anon_sym_AMP,
      if la = CH_AMP then ADVANCE 158 else END_STATE)"

definition tcl_lex_154 :: "bool \<Rightarrow> codepoint \<Rightarrow> lex_case" where
  "tcl_lex_154 eof la = (Some tcl_anon_sym_CARET, END_STATE)"

definition tcl_lex_155 :: "bool \<Rightarrow> codepoint \<Rightarrow> lex_case" where
  "tcl_lex_155 eof la = (Some tcl_anon_sym_CARET,
      if \<not> eof \<and> tcl_in_simple_word la then ADVANCE 205 else END_STATE)"

definition tcl_lex_156 :: "bool \<Rightarrow> codepoint \<Rightarrow> lex_case" where
  "tcl_lex_156 eof la = (Some tcl_anon_sym_PIPE,
      if la = CH_BAR then ADVANCE 161 else
      if \<not> eof \<and> tcl_in_simple_word la then ADVANCE 205 else END_STATE)"

definition tcl_lex_157 :: "bool \<Rightarrow> codepoint \<Rightarrow> lex_case" where
  "tcl_lex_157 eof la = (Some tcl_anon_sym_PIPE,
      if la = CH_BAR then ADVANCE 160 else END_STATE)"

definition tcl_lex_158 :: "bool \<Rightarrow> codepoint \<Rightarrow> lex_case" where
  "tcl_lex_158 eof la = (Some tcl_anon_sym_AMP_AMP, END_STATE)"

definition tcl_lex_159 :: "bool \<Rightarrow> codepoint \<Rightarrow> lex_case" where
  "tcl_lex_159 eof la = (Some tcl_anon_sym_AMP_AMP,
      if \<not> eof \<and> tcl_in_simple_word la then ADVANCE 205 else END_STATE)"

definition tcl_lex_160 :: "bool \<Rightarrow> codepoint \<Rightarrow> lex_case" where
  "tcl_lex_160 eof la = (Some tcl_anon_sym_PIPE_PIPE, END_STATE)"

definition tcl_lex_161 :: "bool \<Rightarrow> codepoint \<Rightarrow> lex_case" where
  "tcl_lex_161 eof la = (Some tcl_anon_sym_PIPE_PIPE,
      if \<not> eof \<and> tcl_in_simple_word la then ADVANCE 205 else END_STATE)"

definition tcl_lex_162 :: "bool \<Rightarrow> codepoint \<Rightarrow> lex_case" where
  "tcl_lex_162 eof la = (Some tcl_anon_sym_QMARK, END_STATE)"

definition tcl_lex_163 :: "bool \<Rightarrow> codepoint \<Rightarrow> lex_case" where
  "tcl_lex_163 eof la = (Some tcl_anon_sym_QMARK,
      if \<not> eof \<and> tcl_in_simple_word la then ADVANCE 205 else END_STATE)"

definition tcl_lex_164 :: "bool \<Rightarrow> codepoint \<Rightarrow> lex_case" where
  "tcl_lex_164 eof la = (Some tcl_anon_sym_COLON, END_STATE)"

definition tcl_lex_165 :: "bool \<Rightarrow> codepoint \<Rightarrow> lex_case" where
  "tcl_lex_165 eof la = (Some tcl_anon_sym_COLON,
      if la = CH_COLON then ADVANCE 96 else
      if \<not> eof \<and> tcl_in_simple_word la then ADVANCE 205 else END_STATE)"

definition tcl_lex_166 :: "bool \<Rightarrow> codepoint \<Rightarrow> lex_case" where
  "tcl_lex_166 eof la = (Some tcl_anon_sym_COLON,
      if la = CH_COLON then ADVANCE 95 else END_STATE)"

definition tcl_lex_167 :: "bool \<Rightarrow> codepoint \<Rightarrow> lex_case" where
  "tcl_lex_167 eof la = (Some tcl_anon_sym_COLON,
      if \<not> eof \<and> tcl_in_simple_word la then ADVANCE 205 else END_STATE)"

definition tcl_lex_168 :: "bool \<Rightarrow> codepoint \<Rightarrow> lex_case" where
  "tcl_lex_168 eof la = (Some tcl_anon_sym_elseif, END_STATE)"

definition tcl_lex_169 :: "bool \<Rightarrow> codepoint \<Rightarrow> lex_case" where
  "tcl_lex_169 eof la = (Some tcl_anon_sym_elseif,
      if \<not> eof \<and> tcl_in_simple_word la then ADVANCE 205 else END_STATE)"

definition tcl_lex_170 :: "bool \<Rightarrow> codepoint \<Rightarrow> lex_case" where
  "tcl_lex_170 eof la = (Some tcl_anon_sym_else,
      if la = CH_i then ADVANCE 184 else
      if \<not> eof \<and> tcl_in_simple_word la then ADVANCE 205 else END_STATE)"

definition tcl_lex_171 :: "bool \<Rightarrow> codepoint \<Rightarrow> lex_case" where
  "tcl_lex_171 eof la = (Some tcl_anon_sym_else,
      if la = CH_i then ADVANCE 65 else END_STATE)"

definition tcl_lex_172 :: "bool \<Rightarrow> codepoint \<Rightarrow> lex_case" where
  "tcl_lex_172 eof la = (Some tcl_anon_sym_DQUOTE, END_STATE)"

definition tcl_lex_173 :: "bool \<Rightarrow> codepoint \<Rightarrow> lex_case" where
  "tcl_lex_173 eof la = (Some tcl_sym_escaped_character, END_STATE)"

definition tcl_lex_174 :: "bool \<Rightarrow> codepoint \<Rightarrow> lex_case" where
  "tcl_lex_174 eof la = (Some tcl_sym__quoted_word_content,
      if la = CH_DQUOTE then ADVANCE 172 else
      if la = CH_DOLLAR then ADVANCE 102 else
      if la = CH_LBRACKET then ADVANCE 177 else
      if la = CH_BACKSLASH then ADVANCE 18 else
      if (CH_TAB \<le> la \<and> la \<le> CH_CR) \<or> la = CH_SPACE then ADVANCE 174 else
      if la \<noteq> 0 \<and> (la < CH_LBRACKET \<or> CH_RBRACKET < la) then ADVANCE 176 else
        END_STATE)"

definition tcl_lex_175 :: "bool \<Rightarrow> codepoint \<Rightarrow> lex_case" where
  "tcl_lex_175 eof la = (Some tcl_sym__quoted_word_content,
      if la = CH_COLON then ADVANCE 95 else
      if la \<noteq> 0 \<and> la \<noteq> CH_DQUOTE \<and> la \<noteq> CH_DOLLAR \<and> (la <
        CH_LBRACKET \<or> CH_RBRACKET < la) then ADVANCE 176 else END_STATE)"

definition tcl_lex_176 :: "bool \<Rightarrow> codepoint \<Rightarrow> lex_case" where
  "tcl_lex_176 eof la = (Some tcl_sym__quoted_word_content,
      if la \<noteq> 0 \<and> la \<noteq> CH_DQUOTE \<and> la \<noteq> CH_DOLLAR \<and> (la <
        CH_LBRACKET \<or> CH_RBRACKET < la) then ADVANCE 176 else END_STATE)"

definition tcl_lex_177 :: "bool \<Rightarrow> codepoint \<Rightarrow> lex_case" where
  "tcl_lex_177 eof la = (Some tcl_anon_sym_LBRACK, END_STATE)"

definition tcl_lex_178 :: "bool \<Rightarrow> codepoint \<Rightarrow> lex_case" where
  "tcl_lex_178 eof la = (Some tcl_anon_sym_RBRACK, END_STATE)"

definition tcl_lex_179 :: "bool \<Rightarrow> codepoint \<Rightarrow> lex_case" where
  "tcl_lex_179 eof la = (Some tcl_sym_simple_word,
      if la = CH_COLON then ADVANCE 96 else
      if \<not> eof \<and> tcl_in_simple_word la then ADVANCE 205 else END_STATE)"

definition tcl_lex_180 :: "bool \<Rightarrow> codepoint \<Rightarrow> lex_case" where
  "tcl_lex_180 eof la = (Some tcl_sym_simple_word,
      if la = CH_EQUALS then ADVANCE 142 else
      if \<not> eof \<and> tcl_in_simple_word la then ADVANCE 205 else END_STATE)"

definition tcl_lex_181 :: "bool \<Rightarrow> codepoint \<Rightarrow> lex_case" where
  "tcl_lex_181 eof la = (Some tcl_sym_simple_word,
      if la = CH_a then ADVANCE 189 else
      if \<not> eof \<and> tcl_in_simple_word la then ADVANCE 205 else END_STATE)"

definition tcl_lex_182 :: "bool \<Rightarrow> codepoint \<Rightarrow> lex_case" where
  "tcl_lex_182 eof la = (Some tcl_sym_simple_word,
      if la = CH_e then ADVANCE 147 else
      if la = CH_i then ADVANCE 151 else
      if \<not> eof \<and> tcl_in_simple_word la then ADVANCE 205 else END_STATE)"

definition tcl_lex_183 :: "bool \<Rightarrow> codepoint \<Rightarrow> lex_case" where
  "tcl_lex_183 eof la = (Some tcl_sym_simple_word,
      if la = CH_e then ADVANCE 170 else
      if \<not> eof \<and> tcl_in_simple_word la then ADVANCE 205 else END_STATE)"

definition tcl_lex_184 :: "bool \<Rightarrow> codepoint \<Rightarrow> lex_case" where
  "tcl_lex_184 eof la = (Some tcl_sym_simple_word,
      if la = CH_f then ADVANCE 169 else
      if \<not> eof \<and> tcl_in_simple_word la then ADVANCE 205 else END_STATE)"

definition tcl_lex_185 :: "bool \<Rightarrow> codepoint \<Rightarrow> lex_case" where
  "tcl_lex_185 eof la = (Some tcl_sym_simple_word,
      if la = CH_i then ADVANCE 192 else
      if la = CH_A \<or> la = CH_a then ADVANCE 198 else
      if \<not> eof \<and> tcl_in_simple_word la then ADVANCE 205 else END_STATE)"

definition tcl_lex_186 :: "bool \<Rightarrow> codepoint \<Rightarrow> lex_case" where
  "tcl_lex_186 eof la = (Some tcl_sym_simple_word,
      if la = CH_l then ADVANCE 193 else
      if la = CH_q then ADVANCE 145 else
      if \<not> eof \<and> tcl_in_simple_word la then ADVANCE 205 else END_STATE)"

definition tcl_lex_187 :: "bool \<Rightarrow> codepoint \<Rightarrow> lex_case" where
  "tcl_lex_187 eof la = (Some tcl_sym_simple_word,
      if la = CH_l then ADVANCE 193 else
      if \<not> eof \<and> tcl_in_simple_word la then ADVANCE 205 else END_STATE)"

definition tcl_lex_188 :: "bool \<Rightarrow> codepoint \<Rightarrow> lex_case" where
  "tcl_lex_188 eof la = (Some tcl_sym_simple_word,
      if la = CH_l then ADVANCE 194 else
      if \<not> eof \<and> tcl_in_simple_word la then ADVANCE 205 else END_STATE)"

definition tcl_lex_189 :: "bool \<Rightarrow> codepoint \<Rightarrow> lex_case" where
  "tcl_lex_189 eof la = (Some tcl_sym_simple_word,
      if la = CH_l then ADVANCE 188 else
      if \<not> eof \<and> tcl_in_simple_word la then ADVANCE 205 else END_STATE)"

definition tcl_lex_190 :: "bool \<Rightarrow> codepoint \<Rightarrow> lex_case" where
  "tcl_lex_190 eof la = (Some tcl_sym_simple_word,
      if la = CH_n then ADVANCE 149 else
      if \<not> eof \<and> tcl_in_simple_word la then ADVANCE 205 else END_STATE)"

definition tcl_lex_191 :: "bool \<Rightarrow> codepoint \<Rightarrow> lex_case" where
  "tcl_lex_191 eof la = (Some tcl_sym_simple_word,
      if la = CH_n then ADVANCE 91 else
      if \<not> eof \<and> tcl_in_simple_word la then ADVANCE 205 else END_STATE)"

definition tcl_lex_192 :: "bool \<Rightarrow> codepoint \<Rightarrow> lex_case" where
  "tcl_lex_192 eof la = (Some tcl_sym_simple_word,
      if la = CH_n then ADVANCE 181 else
      if \<not> eof \<and> tcl_in_simple_word la then ADVANCE 205 else END_STATE)"

definition tcl_lex_193 :: "bool \<Rightarrow> codepoint \<Rightarrow> lex_case" where
  "tcl_lex_193 eof la = (Some tcl_sym_simple_word,
      if la = CH_s then ADVANCE 183 else
      if \<not> eof \<and> tcl_in_simple_word la then ADVANCE 205 else END_STATE)"

definition tcl_lex_194 :: "bool \<Rightarrow> codepoint \<Rightarrow> lex_case" where
  "tcl_lex_194 eof la = (Some tcl_sym_simple_word,
      if la = CH_y then ADVANCE 93 else
      if \<not> eof \<and> tcl_in_simple_word la then ADVANCE 205 else END_STATE)"

definition tcl_lex_195 :: "bool \<Rightarrow> codepoint \<Rightarrow> lex_case" where
  "tcl_lex_195 eof la = (Some tcl_sym_simple_word,
      if la = CH_PLUS \<or> la = CH_MINUS then ADVANCE 204 else
      if CH_0 \<le> la \<and> la \<le> CH_9 then ADVANCE 112 else
      if \<not> eof \<and> tcl_in_simple_word la then ADVANCE 205 else END_STATE)"

definition tcl_lex_196 :: "bool \<Rightarrow> codepoint \<Rightarrow> lex_case" where
  "tcl_lex_196 eof la = (Some tcl_sym_simple_word,
      if la = CH_A \<or> la = CH_a then ADVANCE 198 else
      if \<not> eof \<and> tcl_in_simple_word la then ADVANCE 205 else END_STATE)"

definition tcl_lex_197 :: "bool \<Rightarrow> codepoint \<Rightarrow> lex_case" where
  "tcl_lex_197 eof la = (Some tcl_sym_simple_word,
      if la = 69 \<or> la = CH_e then ADVANCE 113 else
      if \<not> eof \<and> tcl_in_simple_word la then ADVANCE 205 else END_STATE)"

definition tcl_lex_198 :: "bool \<Rightarrow> codepoint \<Rightarrow> lex_case" where
  "tcl_lex_198 eof la = (Some tcl_sym_simple_word,
      if la = 76 \<or> la = CH_l then ADVANCE 200 else
      if \<not> eof \<and> tcl_in_simple_word la then ADVANCE 205 else END_STATE)"

definition tcl_lex_199 :: "bool \<Rightarrow> codepoint \<Rightarrow> lex_case" where
  "tcl_lex_199 eof la = (Some tcl_sym_simple_word,
      if la = CH_R \<or> la = CH_r then ADVANCE 201 else
      if \<not> eof \<and> tcl_in_simple_word la then ADVANCE 205 else END_STATE)"

definition tcl_lex_200 :: "bool \<Rightarrow> codepoint \<Rightarrow> lex_case" where
  "tcl_lex_200 eof la = (Some tcl_sym_simple_word,
      if la = 83 \<or> la = CH_s then ADVANCE 197 else
      if \<not> eof \<and> tcl_in_simple_word la then ADVANCE 205 else END_STATE)"

definition tcl_lex_201 :: "bool \<Rightarrow> codepoint \<Rightarrow> lex_case" where
  "tcl_lex_201 eof la = (Some tcl_sym_simple_word,
      if la = 85 \<or> la = CH_u then ADVANCE 197 else
      if \<not> eof \<and> tcl_in_simple_word la then ADVANCE 205 else END_STATE)"

definition tcl_lex_202 :: "bool \<Rightarrow> codepoint \<Rightarrow> lex_case" where
  "tcl_lex_202 eof la = (Some tcl_sym_simple_word,
      if CH_0 \<le> la \<and> la \<le> CH_9 then ADVANCE 110 else
      if \<not> eof \<and> tcl_in_simple_word la then ADVANCE 205 else END_STATE)"

definition tcl_lex_203 :: "bool \<Rightarrow> codepoint \<Rightarrow> lex_case" where
  "tcl_lex_203 eof la = (Some tcl_sym_simple_word,
      if CH_0 \<le> la \<and> la \<le> CH_9 then ADVANCE 111 else
      if \<not> eof \<and> tcl_in_simple_word la then ADVANCE 205 else END_STATE)"

definition tcl_lex_204 :: "bool \<Rightarrow> codepoint \<Rightarrow> lex_case" where
  "tcl_lex_204 eof la = (Some tcl_sym_simple_word,
      if CH_0 \<le> la \<and> la \<le> CH_9 then ADVANCE 112 else
      if \<not> eof \<and> tcl_in_simple_word la then ADVANCE 205 else END_STATE)"

definition tcl_lex_205 :: "bool \<Rightarrow> codepoint \<Rightarrow> lex_case" where
  "tcl_lex_205 eof la = (Some tcl_sym_simple_word,
      if \<not> eof \<and> tcl_in_simple_word la then ADVANCE 205 else END_STATE)"

definition tcl_lex_cases :: "(bool \<Rightarrow> codepoint \<Rightarrow> lex_case) list" where
  "tcl_lex_cases = [tcl_lex_0, tcl_lex_1, tcl_lex_2, tcl_lex_3, tcl_lex_4, tcl_lex_5, tcl_lex_6,
    tcl_lex_7, tcl_lex_8, tcl_lex_9, tcl_lex_10, tcl_lex_11, tcl_lex_12, tcl_lex_13, tcl_lex_14,
    tcl_lex_15, tcl_lex_16, tcl_lex_17, tcl_lex_18, tcl_lex_19, tcl_lex_20, tcl_lex_21,
    tcl_lex_22, tcl_lex_23, tcl_lex_24, tcl_lex_25, tcl_lex_26, tcl_lex_27, tcl_lex_28,
    tcl_lex_29, tcl_lex_30, tcl_lex_31, tcl_lex_32, tcl_lex_33, tcl_lex_34, tcl_lex_35,
    tcl_lex_36, tcl_lex_37, tcl_lex_38, tcl_lex_39, tcl_lex_40, tcl_lex_41, tcl_lex_42,
    tcl_lex_43, tcl_lex_44, tcl_lex_45, tcl_lex_46, tcl_lex_47, tcl_lex_48, tcl_lex_49,
    tcl_lex_50, tcl_lex_51, tcl_lex_52, tcl_lex_53, tcl_lex_54, tcl_lex_55, tcl_lex_56,
    tcl_lex_57, tcl_lex_58, tcl_lex_59, tcl_lex_60, tcl_lex_61, tcl_lex_62, tcl_lex_63,
    tcl_lex_64, tcl_lex_65, tcl_lex_66, tcl_lex_67, tcl_lex_68, tcl_lex_69, tcl_lex_70,
    tcl_lex_71, tcl_lex_72, tcl_lex_73, tcl_lex_74, tcl_lex_75, tcl_lex_76, tcl_lex_77,
    tcl_lex_78, tcl_lex_79, tcl_lex_80, tcl_lex_81, tcl_lex_82, tcl_lex_83, tcl_lex_84,
    tcl_lex_85, tcl_lex_86, tcl_lex_87, tcl_lex_88, tcl_lex_89, tcl_lex_90, tcl_lex_91,
    tcl_lex_92, tcl_lex_93, tcl_lex_94, tcl_lex_95, tcl_lex_96, tcl_lex_97, tcl_lex_98,
    tcl_lex_99, tcl_lex_100, tcl_lex_101, tcl_lex_102, tcl_lex_103, tcl_lex_104, tcl_lex_105,
    tcl_lex_106, tcl_lex_107, tcl_lex_108, tcl_lex_109, tcl_lex_110, tcl_lex_111, tcl_lex_112,
    tcl_lex_113, tcl_lex_114, tcl_lex_115, tcl_lex_116, tcl_lex_117, tcl_lex_118, tcl_lex_119,
    tcl_lex_120, tcl_lex_121, tcl_lex_122, tcl_lex_123, tcl_lex_124, tcl_lex_125, tcl_lex_126,
    tcl_lex_127, tcl_lex_128, tcl_lex_129, tcl_lex_130, tcl_lex_131, tcl_lex_132, tcl_lex_133,
    tcl_lex_134, tcl_lex_135, tcl_lex_136, tcl_lex_137, tcl_lex_138, tcl_lex_139, tcl_lex_140,
    tcl_lex_141, tcl_lex_142, tcl_lex_143, tcl_lex_144, tcl_lex_145, tcl_lex_146, tcl_lex_147,
    tcl_lex_148, tcl_lex_149, tcl_lex_150, tcl_lex_151, tcl_lex_152, tcl_lex_153, tcl_lex_154,
    tcl_lex_155, tcl_lex_156, tcl_lex_157, tcl_lex_158, tcl_lex_159, tcl_lex_160, tcl_lex_161,
    tcl_lex_162, tcl_lex_163, tcl_lex_164, tcl_lex_165, tcl_lex_166, tcl_lex_167, tcl_lex_168,
    tcl_lex_169, tcl_lex_170, tcl_lex_171, tcl_lex_172, tcl_lex_173, tcl_lex_174, tcl_lex_175,
    tcl_lex_176, tcl_lex_177, tcl_lex_178, tcl_lex_179, tcl_lex_180, tcl_lex_181, tcl_lex_182,
    tcl_lex_183, tcl_lex_184, tcl_lex_185, tcl_lex_186, tcl_lex_187, tcl_lex_188, tcl_lex_189,
    tcl_lex_190, tcl_lex_191, tcl_lex_192, tcl_lex_193, tcl_lex_194, tcl_lex_195, tcl_lex_196,
    tcl_lex_197, tcl_lex_198, tcl_lex_199, tcl_lex_200, tcl_lex_201, tcl_lex_202, tcl_lex_203,
    tcl_lex_204, tcl_lex_205]"

definition tcl_ts_lex :: lex_switch where
  "tcl_ts_lex state eof la =
     (if state < 206 then Some ((tcl_lex_cases ! state) eof la) else None)"

lemmas tcl_lex_defs =
  tcl_lex_0_def tcl_lex_1_def tcl_lex_2_def tcl_lex_3_def tcl_lex_4_def tcl_lex_5_def
    tcl_lex_6_def tcl_lex_7_def tcl_lex_8_def tcl_lex_9_def tcl_lex_10_def tcl_lex_11_def
    tcl_lex_12_def tcl_lex_13_def tcl_lex_14_def tcl_lex_15_def tcl_lex_16_def tcl_lex_17_def
    tcl_lex_18_def tcl_lex_19_def tcl_lex_20_def tcl_lex_21_def tcl_lex_22_def tcl_lex_23_def
    tcl_lex_24_def tcl_lex_25_def tcl_lex_26_def tcl_lex_27_def tcl_lex_28_def tcl_lex_29_def
    tcl_lex_30_def tcl_lex_31_def tcl_lex_32_def tcl_lex_33_def tcl_lex_34_def tcl_lex_35_def
    tcl_lex_36_def tcl_lex_37_def tcl_lex_38_def tcl_lex_39_def tcl_lex_40_def tcl_lex_41_def
    tcl_lex_42_def tcl_lex_43_def tcl_lex_44_def tcl_lex_45_def tcl_lex_46_def tcl_lex_47_def
    tcl_lex_48_def tcl_lex_49_def tcl_lex_50_def tcl_lex_51_def tcl_lex_52_def tcl_lex_53_def
    tcl_lex_54_def tcl_lex_55_def tcl_lex_56_def tcl_lex_57_def tcl_lex_58_def tcl_lex_59_def
    tcl_lex_60_def tcl_lex_61_def tcl_lex_62_def tcl_lex_63_def tcl_lex_64_def tcl_lex_65_def
    tcl_lex_66_def tcl_lex_67_def tcl_lex_68_def tcl_lex_69_def tcl_lex_70_def tcl_lex_71_def
    tcl_lex_72_def tcl_lex_73_def tcl_lex_74_def tcl_lex_75_def tcl_lex_76_def tcl_lex_77_def
    tcl_lex_78_def tcl_lex_79_def tcl_lex_80_def tcl_lex_81_def tcl_lex_82_def tcl_lex_83_def
    tcl_lex_84_def tcl_lex_85_def tcl_lex_86_def tcl_lex_87_def tcl_lex_88_def tcl_lex_89_def
    tcl_lex_90_def tcl_lex_91_def tcl_lex_92_def tcl_lex_93_def tcl_lex_94_def tcl_lex_95_def
    tcl_lex_96_def tcl_lex_97_def tcl_lex_98_def tcl_lex_99_def tcl_lex_100_def tcl_lex_101_def
    tcl_lex_102_def tcl_lex_103_def tcl_lex_104_def tcl_lex_105_def tcl_lex_106_def
    tcl_lex_107_def tcl_lex_108_def tcl_lex_109_def tcl_lex_110_def tcl_lex_111_def
    tcl_lex_112_def tcl_lex_113_def tcl_lex_114_def tcl_lex_115_def tcl_lex_116_def
    tcl_lex_117_def tcl_lex_118_def tcl_lex_119_def tcl_lex_120_def tcl_lex_121_def
    tcl_lex_122_def tcl_lex_123_def tcl_lex_124_def tcl_lex_125_def tcl_lex_126_def
    tcl_lex_127_def tcl_lex_128_def tcl_lex_129_def tcl_lex_130_def tcl_lex_131_def
    tcl_lex_132_def tcl_lex_133_def tcl_lex_134_def tcl_lex_135_def tcl_lex_136_def
    tcl_lex_137_def tcl_lex_138_def tcl_lex_139_def tcl_lex_140_def tcl_lex_141_def
    tcl_lex_142_def tcl_lex_143_def tcl_lex_144_def tcl_lex_145_def tcl_lex_146_def
    tcl_lex_147_def tcl_lex_148_def tcl_lex_149_def tcl_lex_150_def tcl_lex_151_def
    tcl_lex_152_def tcl_lex_153_def tcl_lex_154_def tcl_lex_155_def tcl_lex_156_def
    tcl_lex_157_def tcl_lex_158_def tcl_lex_159_def tcl_lex_160_def tcl_lex_161_def
    tcl_lex_162_def tcl_lex_163_def tcl_lex_164_def tcl_lex_165_def tcl_lex_166_def
    tcl_lex_167_def tcl_lex_168_def tcl_lex_169_def tcl_lex_170_def tcl_lex_171_def
    tcl_lex_172_def tcl_lex_173_def tcl_lex_174_def tcl_lex_175_def tcl_lex_176_def
    tcl_lex_177_def tcl_lex_178_def tcl_lex_179_def tcl_lex_180_def tcl_lex_181_def
    tcl_lex_182_def tcl_lex_183_def tcl_lex_184_def tcl_lex_185_def tcl_lex_186_def
    tcl_lex_187_def tcl_lex_188_def tcl_lex_189_def tcl_lex_190_def tcl_lex_191_def
    tcl_lex_192_def tcl_lex_193_def tcl_lex_194_def tcl_lex_195_def tcl_lex_196_def
    tcl_lex_197_def tcl_lex_198_def tcl_lex_199_def tcl_lex_200_def tcl_lex_201_def
    tcl_lex_202_def tcl_lex_203_def tcl_lex_204_def tcl_lex_205_def

section \<open>The cases of the keyword lexer\<close>

definition tcl_kw_0 :: "bool \<Rightarrow> codepoint \<Rightarrow> lex_case" where
  "tcl_kw_0 eof la = (None,
      if la = CH_BACKSLASH then SKIP 1 else
      if la = CH_c then ADVANCE 2 else
      if la = CH_e then ADVANCE 3 else
      if la = CH_f then ADVANCE 4 else
      if la = CH_g then ADVANCE 5 else
      if la = CH_i then ADVANCE 6 else
      if la = CH_n then ADVANCE 7 else
      if la = CH_p then ADVANCE 8 else
      if la = CH_r then ADVANCE 9 else
      if la = CH_s then ADVANCE 10 else
      if la = CH_t then ADVANCE 11 else
      if la = CH_w then ADVANCE 12 else
      if (CH_TAB \<le> la \<and> la \<le> CH_CR) \<or> la = CH_SPACE then SKIP 0 else END_STATE)"

definition tcl_kw_1 :: "bool \<Rightarrow> codepoint \<Rightarrow> lex_case" where
  "tcl_kw_1 eof la = (None,
      if la = CH_LF then SKIP 0 else
      if la = CH_CR then SKIP 13 else END_STATE)"

definition tcl_kw_2 :: "bool \<Rightarrow> codepoint \<Rightarrow> lex_case" where
  "tcl_kw_2 eof la = (None,
      if la = CH_a then ADVANCE 14 else END_STATE)"

definition tcl_kw_3 :: "bool \<Rightarrow> codepoint \<Rightarrow> lex_case" where
  "tcl_kw_3 eof la = (None,
      if la = CH_r then ADVANCE 15 else
      if la = CH_x then ADVANCE 16 else END_STATE)"

definition tcl_kw_4 :: "bool \<Rightarrow> codepoint \<Rightarrow> lex_case" where
  "tcl_kw_4 eof la = (None,
      if la = CH_o then ADVANCE 17 else END_STATE)"

definition tcl_kw_5 :: "bool \<Rightarrow> codepoint \<Rightarrow> lex_case" where
  "tcl_kw_5 eof la = (None,
      if la = CH_l then ADVANCE 18 else END_STATE)"

definition tcl_kw_6 :: "bool \<Rightarrow> codepoint \<Rightarrow> lex_case" where
  "tcl_kw_6 eof la = (None,
      if la = CH_f then ADVANCE 19 else END_STATE)"

definition tcl_kw_7 :: "bool \<Rightarrow> codepoint \<Rightarrow> lex_case" where
  "tcl_kw_7 eof la = (None,
      if la = CH_a then ADVANCE 20 else END_STATE)"

definition tcl_kw_8 :: "bool \<Rightarrow> codepoint \<Rightarrow> lex_case" where
  "tcl_kw_8 eof la = (None,
      if la = CH_r then ADVANCE 21 else END_STATE)"

definition tcl_kw_9 :: "bool \<Rightarrow> codepoint \<Rightarrow> lex_case" where
  "tcl_kw_9 eof la = (None,
      if la = CH_e then ADVANCE 22 else END_STATE)"

definition tcl_kw_10 :: "bool \<Rightarrow> codepoint \<Rightarrow> lex_case" where
  "tcl_kw_10 eof la = (None,
      if la = CH_e then ADVANCE 23 else END_STATE)"

definition tcl_kw_11 :: "bool \<Rightarrow> codepoint \<Rightarrow> lex_case" where
  "tcl_kw_11 eof la = (None,
      if la = CH_r then ADVANCE 24 else END_STATE)"

definition tcl_kw_12 :: "bool \<Rightarrow> codepoint \<Rightarrow> lex_case" where
  "tcl_kw_12 eof la = (None,
      if la = CH_h then ADVANCE 25 else END_STATE)"

definition tcl_kw_13 :: "bool \<Rightarrow> codepoint \<Rightarrow> lex_case" where
  "tcl_kw_13 eof la = (None,
      if la = CH_LF then SKIP 0 else END_STATE)"

definition tcl_kw_14 :: "bool \<Rightarrow> codepoint \<Rightarrow> lex_case" where
  "tcl_kw_14 eof la = (None,
      if la = CH_t then ADVANCE 26 else END_STATE)"

definition tcl_kw_15 :: "bool \<Rightarrow> codepoint \<Rightarrow> lex_case" where
  "tcl_kw_15 eof la = (None,
      if la = CH_r then ADVANCE 27 else END_STATE)"

definition tcl_kw_16 :: "bool \<Rightarrow> codepoint \<Rightarrow> lex_case" where
  "tcl_kw_16 eof la = (None,
      if la = CH_p then ADVANCE 28 else END_STATE)"

definition tcl_kw_17 :: "bool \<Rightarrow> codepoint \<Rightarrow> lex_case" where
  "tcl_kw_17 eof la = (None,
      if la = CH_r then ADVANCE 29 else END_STATE)"

definition tcl_kw_18 :: "bool \<Rightarrow> codepoint \<Rightarrow> lex_case" where
  "tcl_kw_18 eof la = (None,
      if la = CH_o then ADVANCE 30 else END_STATE)"

definition tcl_kw_19 :: "bool \<Rightarrow> codepoint \<Rightarrow> lex_case" where
  "tcl_kw_19 eof la = (Some tcl_anon_sym_if, END_STATE)"

definition tcl_kw_20 :: "bool \<Rightarrow> codepoint \<Rightarrow> lex_case" where
  "tcl_kw_20 eof la = (None,
      if la = CH_m then ADVANCE 31 else END_STATE)"

definition tcl_kw_21 :: "bool \<Rightarrow> codepoint \<Rightarrow> lex_case" where
  "tcl_kw_21 eof la = (None,
      if la = CH_o then ADVANCE 32 else END_STATE)"

definition tcl_kw_22 :: "bool \<Rightarrow> codepoint \<Rightarrow> lex_case" where
  "tcl_kw_22 eof la = (None,
      if la = CH_g then ADVANCE 33 else END_STATE)"

definition tcl_kw_23 :: "bool \<Rightarrow> codepoint \<Rightarrow> lex_case" where
  "tcl_kw_23 eof la = (None,
      if la = CH_t then ADVANCE 34 else END_STATE)"

definition tcl_kw_24 :: "bool \<Rightarrow> codepoint \<Rightarrow> lex_case" where
  "tcl_kw_24 eof la = (None,
      if la = CH_y then ADVANCE 35 else END_STATE)"

definition tcl_kw_25 :: "bool \<Rightarrow> codepoint \<Rightarrow> lex_case" where
  "tcl_kw_25 eof la = (None,
      if la = CH_i then ADVANCE 36 else END_STATE)"

definition tcl_kw_26 :: "bool \<Rightarrow> codepoint \<Rightarrow> lex_case" where
  "tcl_kw_26 eof la = (None,
      if la = CH_c then ADVANCE 37 else END_STATE)"

definition tcl_kw_27 :: "bool \<Rightarrow> codepoint \<Rightarrow> lex_case" where
  "tcl_kw_27 eof la = (None,
      if la = CH_o then ADVANCE 38 else END_STATE)"

definition tcl_kw_28 :: "bool \<Rightarrow> codepoint \<Rightarrow> lex_case" where
  "tcl_kw_28 eof la = (None,
      if la = CH_r then ADVANCE 39 else END_STATE)"

definition tcl_kw_29 :: "bool \<Rightarrow> codepoint \<Rightarrow> lex_case" where
  "tcl_kw_29 eof la = (None,
      if la = CH_e then ADVANCE 40 else END_STATE)"

definition tcl_kw_30 :: "bool \<Rightarrow> codepoint \<Rightarrow> lex_case" where
  "tcl_kw_30 eof la = (None,
      if la = CH_b then ADVANCE 41 else END_STATE)"

definition tcl_kw_31 :: "bool \<Rightarrow> codepoint \<Rightarrow> lex_case" where
  "tcl_kw_31 eof la = (None,
      if la = CH_e then ADVANCE 42 else END_STATE)"

definition tcl_kw_32 :: "bool \<Rightarrow> codepoint \<Rightarrow> lex_case" where
  "tcl_kw_32 eof la = (None,
      if la = CH_c then ADVANCE 43 else END_STATE)"

definition tcl_kw_33 :: "bool \<Rightarrow> codepoint \<Rightarrow> lex_case" where
  "tcl_kw_33 eof la = (None,
      if la = CH_e then ADVANCE 44 else END_STATE)"

definition tcl_kw_34 :: "bool \<Rightarrow> codepoint \<Rightarrow> lex_case" where
  "tcl_kw_34 eof la = (Some tcl_anon_sym_set, END_STATE)"

definition tcl_kw_35 :: "bool \<Rightarrow> codepoint \<Rightarrow> lex_case" where
  "tcl_kw_35 eof la = (Some tcl_anon_sym_try, END_STATE)"

definition tcl_kw_36 :: "bool \<Rightarrow> codepoint \<Rightarrow> lex_case" where
  "tcl_kw_36 eof la = (None,
      if la = CH_l then ADVANCE 45 else END_STATE)"

definition tcl_kw_37 :: "bool \<Rightarrow> codepoint \<Rightarrow> lex_case" where
  "tcl_kw_37 eof la = (None,
      if la = CH_h then ADVANCE 46 else END_STATE)"

definition tcl_kw_38 :: "bool \<Rightarrow> codepoint \<Rightarrow> lex_case" where
  "tcl_kw_38 eof la = (None,
      if la = CH_r then ADVANCE 47 else END_STATE)"

definition tcl_kw_39 :: "bool \<Rightarrow> codepoint \<Rightarrow> lex_case" where
  "tcl_kw_39 eof la = (Some tcl_anon_sym_expr, END_STATE)"

definition tcl_kw_40 :: "bool \<Rightarrow> codepoint \<Rightarrow> lex_case" where
  "tcl_kw_40 eof la = (None,
      if la = CH_a then ADVANCE 48 else END_STATE)"

definition tcl_kw_41 :: "bool \<Rightarrow> codepoint \<Rightarrow> lex_case" where
  "tcl_kw_41 eof la = (None,
      if la = CH_a then ADVANCE 49 else END_STATE)"

definition tcl_kw_42 :: "bool \<Rightarrow> codepoint \<Rightarrow> lex_case" where
  "tcl_kw_42 eof la = (None,
      if la = CH_s then ADVANCE 50 else END_STATE)"

definition tcl_kw_43 :: "bool \<Rightarrow> codepoint \<Rightarrow> lex_case" where
  "tcl_kw_43 eof la = (Some tcl_anon_sym_proc, END_STATE)"

definition tcl_kw_44 :: "bool \<Rightarrow> codepoint \<Rightarrow> lex_case" where
  "tcl_kw_44 eof la = (None,
      if la = CH_x then ADVANCE 51 else END_STATE)"

definition tcl_kw_45 :: "bool \<Rightarrow> codepoint \<Rightarrow> lex_case" where
  "tcl_kw_45 eof la = (None,
      if la = CH_e then ADVANCE 52 else END_STATE)"

definition tcl_kw_46 :: "bool \<Rightarrow> codepoint \<Rightarrow> lex_case" where
  "tcl_kw_46 eof la = (Some tcl_anon_sym_catch, END_STATE)"

definition tcl_kw_47 :: "bool \<Rightarrow> codepoint \<Rightarrow> lex_case" where
  "tcl_kw_47 eof la = (Some tcl_anon_sym_error, END_STATE)"

definition tcl_kw_48 :: "bool \<Rightarrow> codepoint \<Rightarrow> lex_case" where
  "tcl_kw_48 eof la = (None,
      if la = CH_c then ADVANCE 53 else END_STATE)"

definition tcl_kw_49 :: "bool \<Rightarrow> codepoint \<Rightarrow> lex_case" where
  "tcl_kw_49 eof la = (None,
      if la = CH_l then ADVANCE 54 else END_STATE)"

definition tcl_kw_50 :: "bool \<Rightarrow> codepoint \<Rightarrow> lex_case" where
  "tcl_kw_50 eof la = (None,
      if la = CH_p then ADVANCE 55 else END_STATE)"

definition tcl_kw_51 :: "bool \<Rightarrow> codepoint \<Rightarrow> lex_case" where
  "tcl_kw_51 eof la = (None,
      if la = CH_p then ADVANCE 56 else END_STATE)"

definition tcl_kw_52 :: "bool \<Rightarrow> codepoint \<Rightarrow> lex_case" where
  "tcl_kw_52 eof la = (Some tcl_anon_sym_while, END_STATE)"

definition tcl_kw_53 :: "bool \<Rightarrow> codepoint \<Rightarrow> lex_case" where
  "tcl_kw_53 eof la = (None,
      if la = CH_h then ADVANCE 57 else END_STATE)"

definition tcl_kw_54 :: "bool \<Rightarrow> codepoint \<Rightarrow> lex_case" where
  "tcl_kw_54 eof la = (Some tcl_anon_sym_global, END_STATE)"

definition tcl_kw_55 :: "bool \<Rightarrow> codepoint \<Rightarrow> lex_case" where
  "tcl_kw_55 eof la = (None,
      if la = CH_a then ADVANCE 58 else END_STATE)"

definition tcl_kw_56 :: "bool \<Rightarrow> codepoint \<Rightarrow> lex_case" where
  "tcl_kw_56 eof la = (Some tcl_anon_sym_regexp, END_STATE)"

definition tcl_kw_57 :: "bool \<Rightarrow> codepoint \<Rightarrow> lex_case" where
  "tcl_kw_57 eof la = (Some tcl_anon_sym_foreach, END_STATE)"

definition tcl_kw_58 :: "bool \<Rightarrow> codepoint \<Rightarrow> lex_case" where
  "tcl_kw_58 eof la = (None,
      if la = CH_c then ADVANCE 59 else END_STATE)"

definition tcl_kw_59 :: "bool \<Rightarrow> codepoint \<Rightarrow> lex_case" where
  "tcl_kw_59 eof la = (None,
      if la = CH_e then ADVANCE 60 else END_STATE)"

definition tcl_kw_60 :: "bool \<Rightarrow> codepoint \<Rightarrow> lex_case" where
  "tcl_kw_60 eof la = (Some tcl_anon_sym_namespace, END_STATE)"

definition tcl_kw_cases :: "(bool \<Rightarrow> codepoint \<Rightarrow> lex_case) list" where
  "tcl_kw_cases = [tcl_kw_0, tcl_kw_1, tcl_kw_2, tcl_kw_3, tcl_kw_4, tcl_kw_5, tcl_kw_6,
    tcl_kw_7, tcl_kw_8, tcl_kw_9, tcl_kw_10, tcl_kw_11, tcl_kw_12, tcl_kw_13, tcl_kw_14,
    tcl_kw_15, tcl_kw_16, tcl_kw_17, tcl_kw_18, tcl_kw_19, tcl_kw_20, tcl_kw_21, tcl_kw_22,
    tcl_kw_23, tcl_kw_24, tcl_kw_25, tcl_kw_26, tcl_kw_27, tcl_kw_28, tcl_kw_29, tcl_kw_30,
    tcl_kw_31, tcl_kw_32, tcl_kw_33, tcl_kw_34, tcl_kw_35, tcl_kw_36, tcl_kw_37, tcl_kw_38,
    tcl_kw_39, tcl_kw_40, tcl_kw_41, tcl_kw_42, tcl_kw_43, tcl_kw_44, tcl_kw_45, tcl_kw_46,
    tcl_kw_47, tcl_kw_48, tcl_kw_49, tcl_kw_50, tcl_kw_51, tcl_kw_52, tcl_kw_53, tcl_kw_54,
    tcl_kw_55, tcl_kw_56, tcl_kw_57, tcl_kw_58, tcl_kw_59, tcl_kw_60]"

definition tcl_ts_lex_keywords :: lex_switch where
  "tcl_ts_lex_keywords state eof la =
     (if state < 61 then Some ((tcl_kw_cases ! state) eof la) else None)"

lemmas tcl_kw_defs =
  tcl_kw_0_def tcl_kw_1_def tcl_kw_2_def tcl_kw_3_def tcl_kw_4_def tcl_kw_5_def tcl_kw_6_def
    tcl_kw_7_def tcl_kw_8_def tcl_kw_9_def tcl_kw_10_def tcl_kw_11_def tcl_kw_12_def
    tcl_kw_13_def tcl_kw_14_def tcl_kw_15_def tcl_kw_16_def tcl_kw_17_def tcl_kw_18_def
    tcl_kw_19_def tcl_kw_20_def tcl_kw_21_def tcl_kw_22_def tcl_kw_23_def tcl_kw_24_def
    tcl_kw_25_def tcl_kw_26_def tcl_kw_27_def tcl_kw_28_def tcl_kw_29_def tcl_kw_30_def
    tcl_kw_31_def tcl_kw_32_def tcl_kw_33_def tcl_kw_34_def tcl_kw_35_def tcl_kw_36_def
    tcl_kw_37_def tcl_kw_38_def tcl_kw_39_def tcl_kw_40_def tcl_kw_41_def tcl_kw_42_def
    tcl_kw_43_def tcl_kw_44_def tcl_kw_45_def tcl_kw_46_def tcl_kw_47_def tcl_kw_48_def
    tcl_kw_49_def tcl_kw_50_def tcl_kw_51_def tcl_kw_52_def tcl_kw_53_def tcl_kw_54_def
    tcl_kw_55_def tcl_kw_56_def tcl_kw_57_def tcl_kw_58_def tcl_kw_59_def tcl_kw_60_def

section \<open>The switches are closed\<close>

interpretation tcl_switch: case_switch tcl_ts_lex 206 tcl_lex_cases
proof
  show "tcl_ts_lex s e c = (if s < 206 then Some ((tcl_lex_cases ! s) e c) else None)" for s e c
    by (rule tcl_ts_lex_def)
  show "length tcl_lex_cases = 206"
    by (simp add: tcl_lex_cases_def)
  show "list_all (\<lambda>f. \<forall>e c. goto_bounded 206 (snd (f e c))) tcl_lex_cases"
    unfolding tcl_lex_cases_def list.pred_inject tcl_lex_defs snd_conv
    by (intro conjI allI TrueI goto_bounded_intros; simp)
  show "list_all (eof_stop tcl_lex_cases) tcl_lex_cases"
    by (simp add: tcl_lex_cases_def tcl_lex_defs eof_stop_def)
qed

interpretation tcl_keyword: case_switch tcl_ts_lex_keywords 61 tcl_kw_cases
proof
  show "tcl_ts_lex_keywords s e c = (if s < 61 then Some ((tcl_kw_cases ! s) e c) else None)" for s e c
    by (rule tcl_ts_lex_keywords_def)
  show "length tcl_kw_cases = 61"
    by (simp add: tcl_kw_cases_def)
  show "list_all (\<lambda>f. \<forall>e c. goto_bounded 61 (snd (f e c))) tcl_kw_cases"
    unfolding tcl_kw_cases_def list.pred_inject tcl_kw_defs snd_conv
    by (intro conjI allI TrueI goto_bounded_intros; simp)
  show "list_all (eof_stop tcl_kw_cases) tcl_kw_cases"
    by (simp add: tcl_kw_cases_def tcl_kw_defs eof_stop_def)
qed

lemmas tcl_auto = tcl_switch.next_eq tcl_switch.state_accepts_eq tcl_lex_cases_def

lemmas tcl_kw_auto = tcl_keyword.next_eq tcl_keyword.state_accepts_eq tcl_kw_cases_def

end
