(* ===== verification/Tcl_Keywords.thy ===== *)
theory Tcl_Keywords
  imports Tcl_Lex
begin

text \<open>
  The keyword lexer of the Tcl grammar: behind the blanks it skips it recognises the keywords and
  nothing else.
\<close>

section \<open>States with finitely many words\<close>

text \<open>
  A certificate for a part of a switch without cycles: for each state the words that lead to a token
  from there. It is checked state by state.
\<close>

type_synonym word_table = "(TSStateId \<times> (TSSymbol \<times> codepoint list) list) list"

definition words_ok ::
  "(bool \<Rightarrow> codepoint \<Rightarrow> lex_case) list \<Rightarrow> word_table \<Rightarrow> TSStateId \<times> (TSSymbol \<times> codepoint list) list \<Rightarrow> bool" where
  "words_ok cases T = (\<lambda>(s, ws).
     (\<forall>y. (fst ((cases ! s) False 0) = Some y) = ((y, []) \<in> set ws)) \<and>
     (\<forall>c. goto_within (map fst T) (snd ((cases ! s) False c)) \<and>
       (\<forall>y w. ((y, c # w) \<in> set ws) =
         (case goto_target (snd ((cases ! s) False c)) of
            None \<Rightarrow> False | Some t \<Rightarrow> (y, w) \<in> set (the (map_of T t))))))"

context case_switch
begin

lemma words_token_word:
  assumes ok: "list_all (words_ok cases T) T" and states: "list_all (\<lambda>(s, ws). s < n) T"
  shows "map_of T s = Some ws \<Longrightarrow> token_word sw s y w \<longleftrightarrow> (y, w) \<in> set ws"
proof (induction w arbitrary: s ws)
  case Nil
  then have "(s, ws) \<in> set T" by (rule map_of_SomeD)
  then have "s < n" "\<forall>y. (fst ((cases ! s) False 0) = Some y) = ((y, []) \<in> set ws)"
    using ok states by (auto simp: list_all_iff words_ok_def)
  then show ?case by (simp add: token_word_Nil state_accepts_eq)
next
  case (Cons c w)
  then have s: "(s, ws) \<in> set T" by (blast dest: map_of_SomeD)
  then have n: "s < n" using states by (auto simp: list_all_iff)
  let ?j = "snd ((cases ! s) False c)"
  have within: "goto_within (map fst T) ?j"
    and step: "((y, c # w) \<in> set ws) = (case goto_target ?j of
        None \<Rightarrow> False | Some t \<Rightarrow> (y, w) \<in> set (the (map_of T t)))"
    using ok s by (auto simp: list_all_iff words_ok_def)
  show ?case
  proof (cases "goto_target ?j")
    case None
    then show ?thesis using step n by (simp add: token_word_Cons next_eq)
  next
    case (Some t)
    then have "t \<in> fst ` set T"
      using within by (cases ?j) (auto simp: goto_within_def goto_target_def)
    then obtain ws' where "map_of T t = Some ws'" by (metis map_of_eq_None_iff not_None_eq)
    then show ?thesis using step n Some Cons.IH by (simp add: token_word_Cons next_eq)
  qed
qed

end

section \<open>The keywords\<close>

definition tcl_keywords :: "(TSSymbol \<times> codepoint list) list" where
  "tcl_keywords =
    [(tcl_anon_sym_catch, [CH_c, CH_a, CH_t, CH_c, CH_h]),
     (tcl_anon_sym_error, [CH_e, CH_r, CH_r, CH_o, CH_r]),
     (tcl_anon_sym_expr, [CH_e, CH_x, CH_p, CH_r]),
     (tcl_anon_sym_foreach, [CH_f, CH_o, CH_r, CH_e, CH_a, CH_c, CH_h]),
     (tcl_anon_sym_global, [CH_g, CH_l, CH_o, CH_b, CH_a, CH_l]),
     (tcl_anon_sym_if, [CH_i, CH_f]),
     (tcl_anon_sym_namespace, [CH_n, CH_a, CH_m, CH_e, CH_s, CH_p, CH_a, CH_c, CH_e]),
     (tcl_anon_sym_proc, [CH_p, CH_r, CH_o, CH_c]),
     (tcl_anon_sym_regexp, [CH_r, CH_e, CH_g, CH_e, CH_x, CH_p]),
     (tcl_anon_sym_set, [CH_s, CH_e, CH_t]),
     (tcl_anon_sym_try, [CH_t, CH_r, CH_y]),
     (tcl_anon_sym_while, [CH_w, CH_h, CH_i, CH_l, CH_e])]"

text \<open>The extras of the grammar, \<^verbatim>\<open>\s\<close> and \<^verbatim>\<open>\\\r?\n\<close>.\<close>

definition tcl_extra :: regex where
  "tcl_extra = Alt (Class (\<lambda>c. CH_TAB \<le> c \<and> c \<le> CH_CR \<or> c = CH_SPACE))
     (Seq (Char CH_BACKSLASH) (Seq (Opt (Char CH_CR)) (Char CH_LF)))"

definition tcl_kw_words :: word_table where
  "tcl_kw_words =
    [(2, [(tcl_anon_sym_catch, [CH_a, CH_t, CH_c, CH_h])]),
     (3, [(tcl_anon_sym_error, [CH_r, CH_r, CH_o, CH_r]), (tcl_anon_sym_expr, [CH_x, CH_p, CH_r])]),
     (4, [(tcl_anon_sym_foreach, [CH_o, CH_r, CH_e, CH_a, CH_c, CH_h])]),
     (5, [(tcl_anon_sym_global, [CH_l, CH_o, CH_b, CH_a, CH_l])]),
     (6, [(tcl_anon_sym_if, [CH_f])]),
     (7, [(tcl_anon_sym_namespace, [CH_a, CH_m, CH_e, CH_s, CH_p, CH_a, CH_c, CH_e])]),
     (8, [(tcl_anon_sym_proc, [CH_r, CH_o, CH_c])]),
     (9, [(tcl_anon_sym_regexp, [CH_e, CH_g, CH_e, CH_x, CH_p])]),
     (10, [(tcl_anon_sym_set, [CH_e, CH_t])]),
     (11, [(tcl_anon_sym_try, [CH_r, CH_y])]),
     (12, [(tcl_anon_sym_while, [CH_h, CH_i, CH_l, CH_e])]),
     (14, [(tcl_anon_sym_catch, [CH_t, CH_c, CH_h])]),
     (15, [(tcl_anon_sym_error, [CH_r, CH_o, CH_r])]),
     (16, [(tcl_anon_sym_expr, [CH_p, CH_r])]),
     (17, [(tcl_anon_sym_foreach, [CH_r, CH_e, CH_a, CH_c, CH_h])]),
     (18, [(tcl_anon_sym_global, [CH_o, CH_b, CH_a, CH_l])]),
     (19, [(tcl_anon_sym_if, [])]),
     (20, [(tcl_anon_sym_namespace, [CH_m, CH_e, CH_s, CH_p, CH_a, CH_c, CH_e])]),
     (21, [(tcl_anon_sym_proc, [CH_o, CH_c])]),
     (22, [(tcl_anon_sym_regexp, [CH_g, CH_e, CH_x, CH_p])]),
     (23, [(tcl_anon_sym_set, [CH_t])]),
     (24, [(tcl_anon_sym_try, [CH_y])]),
     (25, [(tcl_anon_sym_while, [CH_i, CH_l, CH_e])]),
     (26, [(tcl_anon_sym_catch, [CH_c, CH_h])]),
     (27, [(tcl_anon_sym_error, [CH_o, CH_r])]),
     (28, [(tcl_anon_sym_expr, [CH_r])]),
     (29, [(tcl_anon_sym_foreach, [CH_e, CH_a, CH_c, CH_h])]),
     (30, [(tcl_anon_sym_global, [CH_b, CH_a, CH_l])]),
     (31, [(tcl_anon_sym_namespace, [CH_e, CH_s, CH_p, CH_a, CH_c, CH_e])]),
     (32, [(tcl_anon_sym_proc, [CH_c])]),
     (33, [(tcl_anon_sym_regexp, [CH_e, CH_x, CH_p])]),
     (34, [(tcl_anon_sym_set, [])]),
     (35, [(tcl_anon_sym_try, [])]),
     (36, [(tcl_anon_sym_while, [CH_l, CH_e])]),
     (37, [(tcl_anon_sym_catch, [CH_h])]),
     (38, [(tcl_anon_sym_error, [CH_r])]),
     (39, [(tcl_anon_sym_expr, [])]),
     (40, [(tcl_anon_sym_foreach, [CH_a, CH_c, CH_h])]),
     (41, [(tcl_anon_sym_global, [CH_a, CH_l])]),
     (42, [(tcl_anon_sym_namespace, [CH_s, CH_p, CH_a, CH_c, CH_e])]),
     (43, [(tcl_anon_sym_proc, [])]),
     (44, [(tcl_anon_sym_regexp, [CH_x, CH_p])]),
     (45, [(tcl_anon_sym_while, [CH_e])]),
     (46, [(tcl_anon_sym_catch, [])]),
     (47, [(tcl_anon_sym_error, [])]),
     (48, [(tcl_anon_sym_foreach, [CH_c, CH_h])]),
     (49, [(tcl_anon_sym_global, [CH_l])]),
     (50, [(tcl_anon_sym_namespace, [CH_p, CH_a, CH_c, CH_e])]),
     (51, [(tcl_anon_sym_regexp, [CH_p])]),
     (52, [(tcl_anon_sym_while, [])]),
     (53, [(tcl_anon_sym_foreach, [CH_h])]),
     (54, [(tcl_anon_sym_global, [])]),
     (55, [(tcl_anon_sym_namespace, [CH_a, CH_c, CH_e])]),
     (56, [(tcl_anon_sym_regexp, [])]),
     (57, [(tcl_anon_sym_foreach, [])]),
     (58, [(tcl_anon_sym_namespace, [CH_c, CH_e])]),
     (59, [(tcl_anon_sym_namespace, [CH_e])]),
     (60, [(tcl_anon_sym_namespace, [])])]"

lemma tcl_kw_table: "list_all (words_ok tcl_kw_cases tcl_kw_words) tcl_kw_words"
  by (simp add: tcl_kw_words_def words_ok_def tcl_kw_cases_def tcl_kw_defs)

lemma tcl_kw_token: "map_of tcl_kw_words s = Some ws \<Longrightarrow> token_word tcl_ts_lex_keywords s y w \<longleftrightarrow> (y, w) \<in> set ws"
  by (rule tcl_keyword.words_token_word [OF tcl_kw_table]) (simp_all add: tcl_kw_words_def)

section \<open>Behind what is skipped\<close>

definition behind :: "regex \<Rightarrow> (codepoint list \<Rightarrow> bool) \<Rightarrow> codepoint list \<Rightarrow> bool" where
  "behind r K w \<longleftrightarrow> (\<exists>u v. w = u @ v \<and> matches (Star r) u \<and> K v)"

lemma behind_unfold:
  "behind r K w \<longleftrightarrow> K w \<or> (\<exists>u v. w = u @ v \<and> matches r u \<and> u \<noteq> [] \<and> behind r K v)"
proof
  assume "behind r K w"
  then obtain u v where uv: "w = u @ v" "matches (Star r) u" "K v" by (auto simp: behind_def)
  show "K w \<or> (\<exists>u v. w = u @ v \<and> matches r u \<and> u \<noteq> [] \<and> behind r K v)"
  proof (cases u)
    case Nil
    then show ?thesis using uv by simp
  next
    case (Cons c u')
    then obtain x y where "u' = x @ y" "matches r (c # x)" "matches (Star r) y"
      using uv(2) by (auto simp: matches_Star_Cons)
    then have "w = (c # x) @ (y @ v)" "matches r (c # x)" "behind r K (y @ v)"
      using uv Cons by (auto simp: behind_def)
    then show ?thesis by blast
  qed
next
  assume "K w \<or> (\<exists>u v. w = u @ v \<and> matches r u \<and> u \<noteq> [] \<and> behind r K v)"
  then show "behind r K w"
  proof (elim disjE exE conjE)
    assume "K w"
    then show ?thesis
      unfolding behind_def by (intro exI[of _ "[]"] exI[of _ w]) (simp add: matches.Star_Nil)
  next
    fix u v assume "w = u @ v" "matches r u" "behind r K v"
    then obtain x y where "w = (u @ x) @ y" "matches (Star r) (u @ x)" "K y"
      by (auto simp: behind_def intro: matches.Star_step)
    then show ?thesis unfolding behind_def by blast
  qed
qed

lemma tcl_extra_iff:
  "matches tcl_extra u \<longleftrightarrow> (\<exists>c. u = [c] \<and> (CH_TAB \<le> c \<and> c \<le> CH_CR \<or> c = CH_SPACE)) \<or>
     u = [CH_BACKSLASH, CH_LF] \<or> u = [CH_BACKSLASH, CH_CR, CH_LF]"
  by (auto simp: tcl_extra_def Opt_def matches_Class matches_Seq)

lemma behind_step: "matches r u \<Longrightarrow> u \<noteq> [] \<Longrightarrow> behind r K v \<Longrightarrow> behind r K (u @ v)"
  by (subst behind_unfold) blast

lemma behind_refl: "K w \<Longrightarrow> behind r K w"
  by (subst behind_unfold) blast

lemma behind_extra:
  "behind tcl_extra K [] \<longleftrightarrow> K []"
  "behind tcl_extra K (c # w) \<longleftrightarrow> K (c # w) \<or> (CH_TAB \<le> c \<and> c \<le> CH_CR \<or> c = CH_SPACE) \<and> behind tcl_extra K w \<or>
     c = CH_BACKSLASH \<and> (\<exists>v. (w = CH_LF # v \<or> w = CH_CR # CH_LF # v) \<and> behind tcl_extra K v)"
    (is "?L \<longleftrightarrow> ?R")
proof -
  show "behind tcl_extra K [] \<longleftrightarrow> K []" by (subst behind_unfold) simp
  show "?L \<longleftrightarrow> ?R"
  proof
    assume ?L
    then show ?R by (subst (asm) behind_unfold) (auto simp: tcl_extra_iff Cons_eq_append_conv)
  next
    have step: "behind tcl_extra K v \<Longrightarrow> matches tcl_extra u \<Longrightarrow> u \<noteq> [] \<Longrightarrow> behind tcl_extra K (u @ v)" for u v
      by (rule behind_step)
    assume ?R
    then show ?L
      using step[of w "[c]"] step[of _ "[CH_BACKSLASH, CH_LF]"] step[of _ "[CH_BACKSLASH, CH_CR, CH_LF]"]
      by (auto simp: tcl_extra_iff intro: behind_refl)
  qed
qed

lemma tcl_keyword_language:
  "token_word tcl_ts_lex_keywords 0 y w \<longleftrightarrow> behind tcl_extra (\<lambda>v. (y, v) \<in> set tcl_keywords) w"
proof (induction w rule: length_induct)
  case (1 w)
  show ?case
  proof (cases w)
    case Nil
    then show ?thesis
      by (simp add: token_word_Nil behind_extra tcl_kw_auto tcl_kw_defs tcl_keywords_def)
  next
    case (Cons c v)
    have ih: "token_word tcl_ts_lex_keywords 0 y x \<longleftrightarrow> behind tcl_extra (\<lambda>v. (y, v) \<in> set tcl_keywords) x"
      if "length x \<le> length v" for x
      using 1 Cons that by simp
    have "token_word tcl_ts_lex_keywords 1 y v \<longleftrightarrow>
        (\<exists>x. (v = CH_LF # x \<or> v = CH_CR # CH_LF # x) \<and> token_word tcl_ts_lex_keywords 0 y x)"
      by (cases v; cases "tl v") (auto simp: token_word_Nil token_word_Cons tcl_kw_auto tcl_kw_defs)
    also have "\<dots> \<longleftrightarrow> (\<exists>x. (v = CH_LF # x \<or> v = CH_CR # CH_LF # x) \<and>
        behind tcl_extra (\<lambda>v. (y, v) \<in> set tcl_keywords) x)"
      using ih by auto
    finally have skip: "token_word tcl_ts_lex_keywords 1 y v \<longleftrightarrow> (\<exists>x. (v = CH_LF # x \<or> v = CH_CR # CH_LF # x) \<and>
        behind tcl_extra (\<lambda>v. (y, v) \<in> set tcl_keywords) x)" .
    show ?thesis
      using ih[of v] skip
      by (auto simp: Cons behind_extra token_word_Cons tcl_kw_auto tcl_kw_defs tcl_keywords_def
          tcl_kw_token tcl_kw_words_def)
  qed
qed

end
