(* ===== verification/Tcl_Text.thy ===== *)
theory Tcl_Text
  imports Tcl_Keywords
begin

text \<open>
  What the Tcl lexers do to a text: maximal munch for any runtime, the keywords, and the tokens a
  command starts with. The last section has a defect of the lexer: a line end before a backslash
  does not end a command.
\<close>

section \<open>Words\<close>

definition tcl_word_char :: "codepoint \<Rightarrow> bool" where
  "tcl_word_char c \<longleftrightarrow> c \<notin> {CH_BANG, CH_DOLLAR, CH_BACKSLASH, CH_LBRACKET, CH_RBRACKET, CH_LBRACE, CH_RBRACE,
     CH_LPAREN, CH_RPAREN, CH_SEMICOLON, CH_DQUOTE} \<and> \<not> (CH_TAB \<le> c \<and> c \<le> CH_CR \<or> c = CH_SPACE)"

definition tcl_simple_word_regex :: regex where
  "tcl_simple_word_regex = Plus (Class tcl_word_char)"

definition tcl_comment_regex :: regex where
  "tcl_comment_regex = Seq (Char CH_HASH) (Star (Class (\<lambda>c. c \<noteq> CH_LF)))"

definition tcl_escaped_character_regex :: regex where
  "tcl_escaped_character_regex = Seq (Char CH_BACKSLASH) (Class (\<lambda>c. c \<noteq> CH_LF))"

text \<open>Code points other than NUL, which stands for the end of input.\<close>

definition tcl_text :: "codepoint list \<Rightarrow> bool" where
  "tcl_text w \<longleftrightarrow> (\<forall>c\<in>set w. 0 < c \<and> c \<le> 0x10FFFF)"

lemma tcl_text_simps [simp]:
  "tcl_text []" "tcl_text (c # w) \<longleftrightarrow> 0 < c \<and> c \<le> 0x10FFFF \<and> tcl_text w"
  "tcl_text (u @ v) \<longleftrightarrow> tcl_text u \<and> tcl_text v"
  by (auto simp: tcl_text_def)

lemma tcl_in_simple_word_iff:
  assumes "0 < c" "c \<le> 0x10FFFF"
  shows "tcl_in_simple_word c \<longleftrightarrow> tcl_word_char c"
proof -
  let ?R = "tcl_sym_simple_word_character_set_1"
  have "ranges_sorted ?R" "length ?R = 9"
    by (simp_all add: ranges_sorted_def tcl_sym_simple_word_character_set_1_def)
  then have "tcl_in_simple_word c \<longleftrightarrow> (\<exists>i<9. in_range (?R ! i) c)"
    using set_contains_loop_correct[of ?R 9 0 c] by (simp add: set_contains_def)
  also have "\<dots> \<longleftrightarrow> list_ex (\<lambda>r. in_range r c) ?R"
    using \<open>length ?R = 9\<close> by (simp add: list_ex_length)
  also have "\<dots> \<longleftrightarrow> tcl_word_char c"
    using assms by (simp add: tcl_sym_simple_word_character_set_1_def in_range_def tcl_word_char_def) arith
  finally show ?thesis .
qed

section \<open>The states behind the start of a command\<close>

lemma tcl_word_state:
  "tcl_text w \<Longrightarrow> token_word tcl_ts_lex 205 y w \<longleftrightarrow> y = tcl_sym_simple_word \<and> list_all tcl_word_char w"
  by (induction w)
    (auto simp: token_word_Nil token_word_Cons tcl_auto tcl_lex_defs tcl_in_simple_word_iff)

lemma tcl_comment_states:
  "tcl_text w \<Longrightarrow>
     (token_word tcl_ts_lex 88 y w \<longleftrightarrow> y = tcl_sym_comment \<and> list_all (\<lambda>c. c \<noteq> CH_LF) w) \<and>
     (token_word tcl_ts_lex 89 y w \<longleftrightarrow> y = tcl_sym_comment \<and> list_all (\<lambda>c. c \<noteq> CH_LF) w)"
  by (induction w) (auto simp: token_word_Nil token_word_Cons tcl_auto tcl_lex_defs)

text \<open>Behind \<open>e\<close> a word may become \<open>else\<close> or \<open>elseif\<close>, which the lexer of these states knows itself.\<close>

abbreviation tcl_or_else :: "TSSymbol \<Rightarrow> codepoint list \<Rightarrow> codepoint list \<Rightarrow> codepoint list \<Rightarrow> bool" where
  "tcl_or_else y e ei w \<equiv> y = tcl_anon_sym_else \<and> w = e \<or> y = tcl_anon_sym_elseif \<and> w = ei \<or>
     y = tcl_sym_simple_word \<and> list_all tcl_word_char w \<and> w \<noteq> e \<and> w \<noteq> ei"

lemma tcl_state_169:
  "tcl_text w \<Longrightarrow> token_word tcl_ts_lex 169 y w \<longleftrightarrow>
     y = tcl_anon_sym_elseif \<and> w = [] \<or> y = tcl_sym_simple_word \<and> list_all tcl_word_char w \<and> w \<noteq> []"
  by (cases w)
    (auto simp: token_word_Nil token_word_Cons tcl_auto tcl_lex_defs tcl_in_simple_word_iff tcl_word_state)

lemma tcl_state_184:
  "tcl_text w \<Longrightarrow> token_word tcl_ts_lex 184 y w \<longleftrightarrow>
     y = tcl_anon_sym_elseif \<and> w = [CH_f] \<or> y = tcl_sym_simple_word \<and> list_all tcl_word_char w \<and> w \<noteq> [CH_f]"
  by (cases w)
    (auto simp: token_word_Nil token_word_Cons tcl_auto tcl_lex_defs tcl_in_simple_word_iff tcl_word_state
      tcl_state_169 tcl_word_char_def)

lemma tcl_state_170:
  "tcl_text w \<Longrightarrow> token_word tcl_ts_lex 170 y w \<longleftrightarrow> tcl_or_else y [] [CH_i, CH_f] w"
  by (cases w)
    (auto simp: token_word_Nil token_word_Cons tcl_auto tcl_lex_defs tcl_in_simple_word_iff tcl_word_state
      tcl_state_184 tcl_word_char_def)

lemma tcl_state_183:
  "tcl_text w \<Longrightarrow> token_word tcl_ts_lex 183 y w \<longleftrightarrow> tcl_or_else y [CH_e] [CH_e, CH_i, CH_f] w"
  by (cases w)
    (auto simp: token_word_Nil token_word_Cons tcl_auto tcl_lex_defs tcl_in_simple_word_iff tcl_word_state
      tcl_state_170 tcl_word_char_def)

lemma tcl_state_193:
  "tcl_text w \<Longrightarrow> token_word tcl_ts_lex 193 y w \<longleftrightarrow> tcl_or_else y [CH_s, CH_e] [CH_s, CH_e, CH_i, CH_f] w"
  by (cases w)
    (auto simp: token_word_Nil token_word_Cons tcl_auto tcl_lex_defs tcl_in_simple_word_iff tcl_word_state
      tcl_state_183 tcl_word_char_def)

lemma tcl_state_187:
  "tcl_text w \<Longrightarrow> token_word tcl_ts_lex 187 y w \<longleftrightarrow>
     tcl_or_else y [CH_l, CH_s, CH_e] [CH_l, CH_s, CH_e, CH_i, CH_f] w"
  by (cases w)
    (auto simp: token_word_Nil token_word_Cons tcl_auto tcl_lex_defs tcl_in_simple_word_iff tcl_word_state
      tcl_state_193 tcl_word_char_def)

section \<open>What is skipped before a command\<close>

text \<open>
  Blanks and continued lines; line ends only when a continued line follows them, for otherwise they
  are the token that ends a command.
\<close>

definition tcl_skipped :: regex where
  "tcl_skipped = Alt (Class (\<lambda>c. CH_TAB \<le> c \<and> c \<le> CH_CR \<and> c \<noteq> CH_LF \<or> c = CH_SPACE))
     (Seq (Star (Char CH_LF)) (Seq (Char CH_BACKSLASH) (Char CH_LF)))"

abbreviation no_line_ends :: "codepoint list \<Rightarrow> codepoint list" where
  "no_line_ends \<equiv> dropWhile (\<lambda>c. c = CH_LF)"

lemma tcl_skipped_iff:
  "matches tcl_skipped u \<longleftrightarrow> (\<exists>c. u = [c] \<and> (CH_TAB \<le> c \<and> c \<le> CH_CR \<and> c \<noteq> CH_LF \<or> c = CH_SPACE)) \<or>
     no_line_ends u = [CH_BACKSLASH, CH_LF]"
proof -
  have "matches (Seq (Star (Char CH_LF)) (Seq (Char CH_BACKSLASH) (Char CH_LF))) u \<longleftrightarrow>
      no_line_ends u = [CH_BACKSLASH, CH_LF]" for u
  proof (induction u)
    case (Cons c u)
    then show ?case by (cases u) (auto simp: matches_Nil matches_Cons)
  qed (simp add: matches_Nil)
  then show ?thesis by (simp add: tcl_skipped_def matches_Class)
qed

lemma behind_skipped:
  assumes "\<not> K []"
  shows "\<not> behind tcl_skipped K []"
    and "behind tcl_skipped K (c # w) \<longleftrightarrow> K (c # w) \<or>
      (CH_TAB \<le> c \<and> c \<le> CH_CR \<and> c \<noteq> CH_LF \<or> c = CH_SPACE) \<and> behind tcl_skipped K w \<or>
      (\<exists>v. no_line_ends (c # w) = CH_BACKSLASH # CH_LF # v \<and> behind tcl_skipped K v)" (is "?L \<longleftrightarrow> ?R")
proof -
  show "\<not> behind tcl_skipped K []" using assms by (subst behind_unfold) simp
  have drop: "no_line_ends (u @ v) = CH_BACKSLASH # CH_LF # v" if "no_line_ends u = [CH_BACKSLASH, CH_LF]" for u v
    using that by (induction u) auto
  show "?L \<longleftrightarrow> ?R"
  proof
    assume ?L
    from iffD1[OF behind_unfold this] consider "K (c # w)"
      | u v where "c # w = u @ v" "matches tcl_skipped u" "behind tcl_skipped K v"
      by (elim disjE exE conjE)
    then show ?R
    proof cases
      case (2 u v)
      then show ?thesis using drop[of u v] by (auto simp: tcl_skipped_iff)
    qed simp
  next
    have step: "behind tcl_skipped K v \<Longrightarrow> matches tcl_skipped u \<Longrightarrow> u \<noteq> [] \<Longrightarrow> behind tcl_skipped K (u @ v)" for u v
      by (rule behind_step)
    assume ?R
    then consider "K (c # w)"
      | "CH_TAB \<le> c \<and> c \<le> CH_CR \<and> c \<noteq> CH_LF \<or> c = CH_SPACE" "behind tcl_skipped K w"
      | v where "no_line_ends (c # w) = CH_BACKSLASH # CH_LF # v" "behind tcl_skipped K v" by blast
    then show ?L
    proof cases
      case 1
      then show ?thesis by (rule behind_refl)
    next
      case 2
      then show ?thesis using step[of w "[c]"] by (auto simp: tcl_skipped_iff)
    next
      case (3 v)
      define u where "u = takeWhile (\<lambda>c. c = CH_LF) (c # w)"
      have "c # w = (u @ [CH_BACKSLASH, CH_LF]) @ v"
        using takeWhile_dropWhile_id[of "\<lambda>c. c = CH_LF" "c # w"] 3(1) by (simp only: u_def append.assoc) simp
      moreover have "\<forall>x\<in>set u. x = CH_LF" by (auto simp: u_def dest: set_takeWhileD)
      then have "no_line_ends (u @ [CH_BACKSLASH, CH_LF]) = [CH_BACKSLASH, CH_LF]" by simp
      then have "matches tcl_skipped (u @ [CH_BACKSLASH, CH_LF])" by (simp add: tcl_skipped_iff)
      ultimately show ?thesis using step[OF 3(2)] by (metis append_is_Nil_conv list.distinct(1))
    qed
  qed
qed

section \<open>The start of a command\<close>

lemma tcl_state_173: "token_word tcl_ts_lex 173 y w \<longleftrightarrow> y = tcl_sym_escaped_character \<and> w = []"
  by (cases w) (auto simp: token_word_Nil token_word_Cons tcl_auto tcl_lex_defs)

lemma tcl_state_2:
  "tcl_text w \<Longrightarrow> token_word tcl_ts_lex 2 y w \<longleftrightarrow> (\<exists>v. w = CH_LF # v \<and> token_word tcl_ts_lex 1 y v) \<or>
     y = tcl_sym_escaped_character \<and> (\<exists>d. w = [d] \<and> d \<noteq> CH_LF)"
  by (cases w) (auto simp: token_word_Nil token_word_Cons tcl_auto tcl_lex_defs tcl_state_173)

lemma tcl_state_83:
  "tcl_text w \<Longrightarrow> token_word tcl_ts_lex 83 y w \<longleftrightarrow> y = tcl_anon_sym_LF \<and> no_line_ends w = [] \<or>
     (\<exists>v. no_line_ends w = CH_BACKSLASH # v \<and> token_word tcl_ts_lex 2 y v)"
  by (induction w) (auto simp: token_word_Nil token_word_Cons tcl_auto tcl_lex_defs)

text \<open>The words of a token that begins at once, in the states that start a command.\<close>

definition tcl_starts :: "TSSymbol \<Rightarrow> codepoint list \<Rightarrow> bool" where
  "tcl_starts y w \<longleftrightarrow> (case w of
       [] \<Rightarrow> False
     | c # v \<Rightarrow>
         if c = CH_LF \<or> c = CH_BACKSLASH then
           y = tcl_anon_sym_LF \<and> no_line_ends w = [] \<or>
           y = tcl_sym_escaped_character \<and> (\<exists>d. no_line_ends w = [CH_BACKSLASH, d] \<and> d \<noteq> CH_LF)
         else \<not> (CH_TAB \<le> c \<and> c \<le> CH_CR \<or> c = CH_SPACE) \<and> token_word tcl_ts_lex 80 y w)"

lemma tcl_starts_simps:
  "tcl_starts y (CH_LF # v) \<longleftrightarrow> y = tcl_anon_sym_LF \<and> no_line_ends v = [] \<or>
     y = tcl_sym_escaped_character \<and> (\<exists>d. no_line_ends v = [CH_BACKSLASH, d] \<and> d \<noteq> CH_LF)"
  "tcl_starts y (CH_BACKSLASH # v) \<longleftrightarrow> y = tcl_sym_escaped_character \<and> (\<exists>d. v = [d] \<and> d \<noteq> CH_LF)"
  "c \<noteq> CH_LF \<Longrightarrow> c \<noteq> CH_BACKSLASH \<Longrightarrow> tcl_starts y (c # v) \<longleftrightarrow>
     \<not> (CH_TAB \<le> c \<and> c \<le> CH_CR \<or> c = CH_SPACE) \<and> token_word tcl_ts_lex 80 y (c # v)"
  by (auto simp: tcl_starts_def)

lemma tcl_command_next:
  "s \<in> {1, 80} \<Longrightarrow> lex_next tcl_ts_lex s c =
     (if c = CH_LF then Some 83 else if c = CH_BACKSLASH then Some 2
      else if CH_TAB \<le> c \<and> c \<le> CH_CR \<or> c = CH_SPACE then Some s
      else lex_next tcl_ts_lex 80 c)"
  by (auto simp: tcl_auto tcl_lex_defs)

lemma tcl_command_accepts: "s \<in> {1, 80} \<Longrightarrow> state_accepts tcl_ts_lex s = None"
  by (auto simp: tcl_auto tcl_lex_defs)

lemma tcl_text_dropWhile: "tcl_text w \<Longrightarrow> tcl_text (dropWhile P w)"
  by (auto simp: tcl_text_def dest: set_dropWhileD)

lemma tcl_command_language:
  "\<lbrakk> s \<in> {1, 80}; tcl_text w \<rbrakk> \<Longrightarrow> token_word tcl_ts_lex s y w \<longleftrightarrow> behind tcl_skipped (tcl_starts y) w"
proof (induction w arbitrary: s rule: length_induct)
  case (1 w)
  have K: "\<not> tcl_starts y []" by (simp add: tcl_starts_def)
  show ?case
  proof (cases w)
    case Nil
    then show ?thesis
      using "1.prems" behind_skipped(1)[of "tcl_starts y", OF K] by (simp add: token_word_Nil tcl_command_accepts)
  next
    case (Cons c v)
    have ih: "token_word tcl_ts_lex s' y x \<longleftrightarrow> behind tcl_skipped (tcl_starts y) x"
      if "length x \<le> length v" "tcl_text x" "s' \<in> {1, 80}" for x s'
      using 1(1) Cons that by auto
    note unfold = behind_skipped(2)[of "tcl_starts y", OF K]
    have chars: "0 < c" "tcl_text v" using "1.prems"(2) Cons by simp_all
    have two: "token_word tcl_ts_lex 2 y x \<longleftrightarrow> (\<exists>z. x = CH_LF # z \<and> behind tcl_skipped (tcl_starts y) z) \<or>
        y = tcl_sym_escaped_character \<and> (\<exists>d. x = [d] \<and> d \<noteq> CH_LF)"
      if "length x \<le> length v" "tcl_text x" for x
      using that ih[of _ 1] by (auto simp: tcl_state_2)
    consider (lf) "c = CH_LF" | (bs) "c = CH_BACKSLASH"
      | (ws) "c \<noteq> CH_LF" "CH_TAB \<le> c \<and> c \<le> CH_CR \<or> c = CH_SPACE"
      | (other) "c \<noteq> CH_LF" "c \<noteq> CH_BACKSLASH" "\<not> (CH_TAB \<le> c \<and> c \<le> CH_CR \<or> c = CH_SPACE)" by blast
    then show ?thesis
    proof cases
      case lf
      have "token_word tcl_ts_lex s y w \<longleftrightarrow> token_word tcl_ts_lex 83 y v"
        using "1.prems"(1) by (simp add: Cons lf token_word_Cons tcl_command_next)
      then have tok: "token_word tcl_ts_lex s y w \<longleftrightarrow> y = tcl_anon_sym_LF \<and> no_line_ends v = [] \<or>
          (\<exists>x. no_line_ends v = CH_BACKSLASH # x \<and> token_word tcl_ts_lex 2 y x)"
        by (simp add: tcl_state_83[OF chars(2)])
      show ?thesis
      proof (cases "no_line_ends v")
        case Nil
        show ?thesis unfolding tok unfolding Cons lf unfold
          by (simp add: tcl_starts_simps Nil del: dropWhile_eq_Nil_conv)
      next
        case v: (Cons d x)
        then have "length x \<le> length v" "tcl_text x"
          using length_dropWhile_le[of "\<lambda>c. c = CH_LF" v] tcl_text_dropWhile[OF chars(2), of "\<lambda>c. c = CH_LF"]
          by auto
        note two_x = two[OF this]
        show ?thesis unfolding tok unfolding Cons lf unfold by (simp add: tcl_starts_simps v two_x) blast
      qed
    next
      case bs
      have "token_word tcl_ts_lex s y w \<longleftrightarrow> token_word tcl_ts_lex 2 y v"
        using "1.prems"(1) by (simp add: Cons bs token_word_Cons tcl_command_next)
      then show ?thesis
        unfolding two[OF order_refl chars(2)] unfolding Cons bs unfold by (simp add: tcl_starts_simps) blast
    next
      case ws
      then have next_s: "lex_next tcl_ts_lex s c = Some s" and c: "c \<noteq> CH_BACKSLASH"
        using "1.prems"(1) by (auto simp: tcl_command_next)
      have "token_word tcl_ts_lex s y w \<longleftrightarrow> token_word tcl_ts_lex s y v"
        by (simp add: Cons token_word_Cons next_s)
      then show ?thesis
        unfolding ih[OF order_refl chars(2) "1.prems"(1)] unfolding Cons unfold
        using ws c by (simp add: tcl_starts_simps)
    next
      case other
      then have "lex_next tcl_ts_lex s c = lex_next tcl_ts_lex 80 c"
        using tcl_command_next[OF "1.prems"(1), of c] by auto
      then have "token_word tcl_ts_lex s y w \<longleftrightarrow> token_word tcl_ts_lex 80 y w"
        by (simp add: Cons token_word_Cons)
      then show ?thesis
        unfolding Cons unfold using other by (simp add: tcl_starts_simps) blast
    qed
  qed
qed

text \<open>
  The words of the tokens that can start a command, and of what ends one, with the line ends the lexer
  reads before them.
\<close>

definition tcl_command_token :: "TSSymbol \<Rightarrow> codepoint list \<Rightarrow> bool" where
  "tcl_command_token y w \<longleftrightarrow>
     y = tcl_sym_comment \<and> matches tcl_comment_regex w \<or>
     y = tcl_sym_simple_word \<and> matches tcl_simple_word_regex w \<and> hd w \<noteq> CH_HASH \<and>
       w \<noteq> [CH_e, CH_l, CH_s, CH_e] \<and> w \<noteq> [CH_e, CH_l, CH_s, CH_e, CH_i, CH_f] \<or>
     y = tcl_anon_sym_else \<and> w = [CH_e, CH_l, CH_s, CH_e] \<or>
     y = tcl_anon_sym_elseif \<and> w = [CH_e, CH_l, CH_s, CH_e, CH_i, CH_f] \<or>
     y = tcl_anon_sym_LF \<and> matches (Plus (Char CH_LF)) w \<or>
     y = tcl_sym_escaped_character \<and> matches (Seq (Star (Char CH_LF)) tcl_escaped_character_regex) w \<or>
     y = tcl_sym_unpack \<and> w = [CH_LBRACE, CH_STAR, CH_RBRACE] \<or>
     (y, w) \<in> {(tcl_anon_sym_SEMI, [CH_SEMICOLON]), (tcl_anon_sym_DQUOTE, [CH_DQUOTE]), (tcl_anon_sym_DOLLAR, [CH_DOLLAR]),
       (tcl_anon_sym_LBRACK, [CH_LBRACKET]), (tcl_anon_sym_LBRACE, [CH_LBRACE]), (tcl_anon_sym_RBRACE, [CH_RBRACE])}"

lemma tcl_single_states:
  "token_word tcl_ts_lex 87 y w \<longleftrightarrow> y = tcl_anon_sym_SEMI \<and> w = []"
  "token_word tcl_ts_lex 172 y w \<longleftrightarrow> y = tcl_anon_sym_DQUOTE \<and> w = []"
  "token_word tcl_ts_lex 102 y w \<longleftrightarrow> y = tcl_anon_sym_DOLLAR \<and> w = []"
  "token_word tcl_ts_lex 177 y w \<longleftrightarrow> y = tcl_anon_sym_LBRACK \<and> w = []"
  "token_word tcl_ts_lex 109 y w \<longleftrightarrow> y = tcl_anon_sym_RBRACE \<and> w = []"
  "token_word tcl_ts_lex 94 y w \<longleftrightarrow> y = tcl_sym_unpack \<and> w = []"
  by (cases w; auto simp: token_word_Nil token_word_Cons tcl_auto tcl_lex_defs)+

lemma tcl_state_104:
  "token_word tcl_ts_lex 104 y w \<longleftrightarrow> y = tcl_anon_sym_LBRACE \<and> w = [] \<or> y = tcl_sym_unpack \<and> w = [CH_STAR, CH_RBRACE]"
  by (cases w; cases "tl w")
    (auto simp: token_word_Nil token_word_Cons tcl_auto tcl_lex_defs tcl_single_states)

lemma tcl_start_next:
  "0 < c \<Longrightarrow> c \<noteq> CH_LF \<Longrightarrow> c \<noteq> CH_BACKSLASH \<Longrightarrow> \<not> (CH_TAB \<le> c \<and> c \<le> CH_CR \<or> c = CH_SPACE) \<Longrightarrow>
    lex_next tcl_ts_lex 80 c =
      (if c = CH_HASH then Some 88 else if c = CH_e then Some 187 else if tcl_word_char c then Some 205
       else if c = CH_SEMICOLON then Some 87 else if c = CH_DQUOTE then Some 172 else if c = CH_DOLLAR then Some 102
       else if c = CH_LBRACKET then Some 177 else if c = CH_LBRACE then Some 104 else if c = CH_RBRACE then Some 109
       else None)"
  by (simp add: tcl_auto tcl_lex_defs tcl_word_char_def)

lemma matches_Class_Nil_Cons:
  "matches (Plus (Class p)) w \<longleftrightarrow> w \<noteq> [] \<and> list_all p w"
  "matches (Seq (Class q) (Star (Class p))) w \<longleftrightarrow> w \<noteq> [] \<and> q (hd w) \<and> list_all p (tl w)"
  by (cases w; simp add: Plus_def matches_Nil matches_Cons matches_Star_Class list_all_iff)+

lemma matches_line_ends:
  assumes "\<And>v. \<not> matches q (CH_LF # v)"
  shows "matches (Seq (Star (Char CH_LF)) q) w \<longleftrightarrow> matches q (no_line_ends w)"
proof (induction w)
  case Nil
  then show ?case by (simp add: matches_Nil)
next
  case (Cons c w)
  then show ?case
    using assms[of w] by (cases "c = CH_LF") (simp_all add: matches_Cons)
qed

lemma matches_escaped:
  "matches (Seq (Star (Char CH_LF)) tcl_escaped_character_regex) w \<longleftrightarrow>
    (\<exists>d. no_line_ends w = [CH_BACKSLASH, d] \<and> d \<noteq> CH_LF)"
  by (subst matches_line_ends) (auto simp: tcl_escaped_character_regex_def matches_Seq matches_Class)

lemma tcl_starts_token:
  assumes "tcl_text w"
  shows "tcl_starts y w \<longleftrightarrow> tcl_command_token y w"
proof (cases w)
  case Nil
  then show ?thesis
    by (simp add: tcl_starts_def tcl_command_token_def matches_escaped matches_Class_Nil_Cons
        tcl_comment_regex_def tcl_simple_word_regex_def)
next
  case (Cons c v)
  note simps = tcl_command_token_def matches_escaped matches_Class_Nil_Cons
    tcl_comment_regex_def tcl_simple_word_regex_def tcl_word_char_def
  consider (lf) "c = CH_LF" | (bs) "c = CH_BACKSLASH" | (ws) "c \<noteq> CH_LF" "CH_TAB \<le> c \<and> c \<le> CH_CR \<or> c = CH_SPACE"
    | (other) "c \<noteq> CH_LF" "c \<noteq> CH_BACKSLASH" "\<not> (CH_TAB \<le> c \<and> c \<le> CH_CR \<or> c = CH_SPACE)" by blast
  then show ?thesis
  proof cases
    case lf
    then show ?thesis by (simp add: Cons tcl_starts_simps simps list_all_iff)
  next
    case bs
    then show ?thesis by (auto simp: Cons tcl_starts_simps simps)
  next
    case ws
    then show ?thesis by (auto simp: Cons tcl_starts_def simps)
  next
    case other
    have v: "tcl_text v" "0 < c" using assms Cons by simp_all
    have "tcl_starts y w \<longleftrightarrow> (case lex_next tcl_ts_lex 80 c of None \<Rightarrow> False | Some t \<Rightarrow> token_word tcl_ts_lex t y v)"
      using other by (simp add: Cons tcl_starts_simps token_word_Cons)
    then show ?thesis
      unfolding tcl_start_next[OF v(2) other] using other v
      by (auto simp: Cons tcl_command_token_def matches_escaped matches_Class_Nil_Cons tcl_comment_regex_def
          tcl_simple_word_regex_def tcl_comment_states tcl_state_187 tcl_word_state tcl_single_states tcl_state_104)
         (auto simp: tcl_word_char_def)
  qed
qed

lemma behind_cong:
  assumes "\<And>u v. w = u @ v \<Longrightarrow> K v \<longleftrightarrow> K' v"
  shows "behind r K w \<longleftrightarrow> behind r K' w"
  using assms by (auto simp: behind_def)

section \<open>The tokens of the grammar\<close>

text \<open>The patterns and strings of \<^verbatim>\<open>grammar.json\<close> that can start a command or end it.\<close>

definition tcl_command_patterns :: "(TSSymbol \<times> regex) list" where
  "tcl_command_patterns =
     [(tcl_sym_comment, tcl_comment_regex),
      (tcl_sym_simple_word, tcl_simple_word_regex),
      (tcl_sym_escaped_character, tcl_escaped_character_regex),
      (tcl_sym_unpack, Word [CH_LBRACE, CH_STAR, CH_RBRACE]),
      (tcl_anon_sym_else, Word [CH_e, CH_l, CH_s, CH_e]),
      (tcl_anon_sym_elseif, Word [CH_e, CH_l, CH_s, CH_e, CH_i, CH_f]),
      (tcl_anon_sym_LF, Char CH_LF), (tcl_anon_sym_SEMI, Char CH_SEMICOLON),
      (tcl_anon_sym_DQUOTE, Char CH_DQUOTE), (tcl_anon_sym_DOLLAR, Char CH_DOLLAR),
      (tcl_anon_sym_LBRACK, Char CH_LBRACKET), (tcl_anon_sym_LBRACE, Char CH_LBRACE),
      (tcl_anon_sym_RBRACE, Char CH_RBRACE)]"

definition tcl_pattern_matches :: "TSSymbol \<Rightarrow> codepoint list \<Rightarrow> bool" where
  "tcl_pattern_matches y v \<longleftrightarrow> list_ex (\<lambda>(x, r). x = y \<and> matches r v) tcl_command_patterns"

text \<open>Lexical precedence: a word that another pattern matches as well is that token.\<close>

definition tcl_grammar_token :: "TSSymbol \<Rightarrow> codepoint list \<Rightarrow> bool" where
  "tcl_grammar_token y v \<longleftrightarrow> tcl_pattern_matches y v \<and>
     (y = tcl_sym_simple_word \<longrightarrow> list_all (\<lambda>(x, r). x = y \<or> \<not> matches r v) tcl_command_patterns)"

text \<open>
  A line end in the extras \<open>u\<close> before \<open>v\<close> that no backslash stands before, and that is followed, behind more line
  ends, by something else than a backslash. The flag says that a backslash stands before \<open>u\<close>.
\<close>

fun tcl_bare_line_end :: "bool \<Rightarrow> codepoint list \<Rightarrow> codepoint list \<Rightarrow> bool" where
  "tcl_bare_line_end continued [] v \<longleftrightarrow> False"
| "tcl_bare_line_end continued (c # u) v \<longleftrightarrow>
     c = CH_LF \<and> \<not> continued \<and> no_line_ends (u @ v) \<noteq> [] \<and> hd (no_line_ends (u @ v)) \<noteq> CH_BACKSLASH \<or>
     tcl_bare_line_end (c = CH_BACKSLASH) u v"

abbreviation tcl_crlf_continued :: "codepoint list \<Rightarrow> bool" where
  "tcl_crlf_continued u \<equiv> sublist [CH_BACKSLASH, CH_CR] u"

definition tcl_lexeme :: "TSSymbol \<Rightarrow> codepoint list \<Rightarrow> codepoint list \<Rightarrow> bool" where
  "tcl_lexeme y u v \<longleftrightarrow> matches (Star tcl_extra) u \<and> tcl_grammar_token y v \<and>
     \<not> tcl_bare_line_end False u v \<and> \<not> tcl_crlf_continued u"

text \<open>The tokens of the grammar, and with line ends before them those of the lexer.\<close>

lemma matches_Word: "matches (Word cs) w \<longleftrightarrow> w = cs"
  by (induction cs arbitrary: w rule: Word.induct) (auto simp: matches_Seq matches_Class)

lemma tcl_simple_word_overlap:
  assumes "matches tcl_simple_word_regex v"
  shows "matches tcl_comment_regex v \<longleftrightarrow> hd v = CH_HASH" and "\<not> matches tcl_escaped_character_regex v"
    and "v \<noteq> [CH_LF]" "v \<noteq> [CH_SEMICOLON]" "v \<noteq> [CH_DQUOTE]" "v \<noteq> [CH_DOLLAR]" "v \<noteq> [CH_LBRACKET]"
      "v \<noteq> [CH_LBRACE]" "v \<noteq> [CH_RBRACE]" "v \<noteq> [CH_LBRACE, CH_STAR, CH_RBRACE]"
proof -
  have v: "v \<noteq> []" "list_all tcl_word_char v"
    using assms by (simp_all add: tcl_simple_word_regex_def matches_Class_Nil_Cons)
  have "list_all (\<lambda>c. c \<noteq> CH_LF) v"
    by (rule list.pred_mono_strong [OF v(2)]) (auto simp: tcl_word_char_def)
  then show "matches tcl_comment_regex v \<longleftrightarrow> hd v = CH_HASH"
    using v(1) by (cases v) (simp_all add: tcl_comment_regex_def matches_Class_Nil_Cons)
  show "\<not> matches tcl_escaped_character_regex v"
    using v by (auto simp: tcl_escaped_character_regex_def matches_Seq matches_Class tcl_word_char_def)
  show "v \<noteq> [CH_LF]" "v \<noteq> [CH_SEMICOLON]" "v \<noteq> [CH_DQUOTE]" "v \<noteq> [CH_DOLLAR]" "v \<noteq> [CH_LBRACKET]"
      "v \<noteq> [CH_LBRACE]" "v \<noteq> [CH_RBRACE]" "v \<noteq> [CH_LBRACE, CH_STAR, CH_RBRACE]"
    using v by (auto simp: tcl_word_char_def)
qed

lemma tcl_grammar_token_iff:
  "tcl_grammar_token y v \<longleftrightarrow>
     y = tcl_sym_comment \<and> matches tcl_comment_regex v \<or>
     y = tcl_sym_simple_word \<and> matches tcl_simple_word_regex v \<and> hd v \<noteq> CH_HASH \<and>
       v \<noteq> [CH_e, CH_l, CH_s, CH_e] \<and> v \<noteq> [CH_e, CH_l, CH_s, CH_e, CH_i, CH_f] \<or>
     y = tcl_anon_sym_else \<and> v = [CH_e, CH_l, CH_s, CH_e] \<or>
     y = tcl_anon_sym_elseif \<and> v = [CH_e, CH_l, CH_s, CH_e, CH_i, CH_f] \<or>
     y = tcl_anon_sym_LF \<and> v = [CH_LF] \<or>
     y = tcl_sym_escaped_character \<and> matches tcl_escaped_character_regex v \<or>
     y = tcl_sym_unpack \<and> v = [CH_LBRACE, CH_STAR, CH_RBRACE] \<or>
     (y, v) \<in> {(tcl_anon_sym_SEMI, [CH_SEMICOLON]), (tcl_anon_sym_DQUOTE, [CH_DQUOTE]), (tcl_anon_sym_DOLLAR, [CH_DOLLAR]),
       (tcl_anon_sym_LBRACK, [CH_LBRACKET]), (tcl_anon_sym_LBRACE, [CH_LBRACE]), (tcl_anon_sym_RBRACE, [CH_RBRACE])}"
proof (cases "y = tcl_sym_simple_word \<and> matches tcl_simple_word_regex v")
  case True
  then show ?thesis
    using tcl_simple_word_overlap [of v]
    by (simp add: tcl_grammar_token_def tcl_pattern_matches_def tcl_command_patterns_def matches_Word matches_Class
        conj_assoc del: Word.simps)
next
  case False
  then show ?thesis
    by (auto simp: tcl_grammar_token_def tcl_pattern_matches_def tcl_command_patterns_def matches_Word matches_Class
        simp del: Word.simps)
qed

lemma tcl_command_token_starts:
  "\<not> tcl_command_token y []"
  "tcl_command_token y (CH_LF # v) \<longleftrightarrow> y = tcl_anon_sym_LF \<and> no_line_ends v = [] \<or>
     y = tcl_sym_escaped_character \<and> (\<exists>d. no_line_ends v = [CH_BACKSLASH, d] \<and> d \<noteq> CH_LF)"
  "tcl_command_token y (CH_BACKSLASH # v) \<longleftrightarrow> y = tcl_sym_escaped_character \<and> (\<exists>d. v = [d] \<and> d \<noteq> CH_LF)"
  by (auto simp: tcl_command_token_def matches_escaped matches_Class_Nil_Cons tcl_comment_regex_def
      tcl_simple_word_regex_def tcl_word_char_def list_all_iff)

lemma tcl_command_token_cases:
  "tcl_command_token y w \<longleftrightarrow> tcl_grammar_token y w \<or>
     (\<exists>v. w = CH_LF # v \<and> tcl_command_token y v \<and> (no_line_ends v = [] \<or> hd (no_line_ends v) = CH_BACKSLASH))"
  proof (cases "hd w = CH_LF \<and> w \<noteq> []")
  case False
  then have "no_line_ends w = w" "\<nexists>v. w = CH_LF # v" "w \<noteq> [CH_LF]"
    by (cases w; simp)+
  moreover from this have "\<not> matches (Plus (Char CH_LF)) w"
    by (cases w) (simp_all add: matches_Class_Nil_Cons)
  moreover have "matches (Seq (Star (Char CH_LF)) tcl_escaped_character_regex) w \<longleftrightarrow>
      matches tcl_escaped_character_regex (no_line_ends w)"
    by (rule matches_line_ends) (simp add: tcl_escaped_character_regex_def matches_Cons)
  ultimately have "tcl_command_token y w \<longleftrightarrow> tcl_grammar_token y w" "\<nexists>v. w = CH_LF # v"
    unfolding tcl_command_token_def tcl_grammar_token_iff by (simp_all only: simp_thms)
  then show ?thesis
    by blast
next
  case True
  then obtain v where w: "w = CH_LF # v"
    by (cases w) auto
  have "tcl_grammar_token y (CH_LF # v) \<longleftrightarrow> y = tcl_anon_sym_LF \<and> v = []"
    by (auto simp: tcl_grammar_token_iff matches_Class_Nil_Cons tcl_comment_regex_def
        tcl_simple_word_regex_def tcl_word_char_def tcl_escaped_character_regex_def matches_Seq matches_Class)
  moreover have "tcl_command_token y v \<longleftrightarrow> y = tcl_anon_sym_LF" if "no_line_ends v = []" "v \<noteq> []"
  proof -
    obtain x where "v = CH_LF # x" "no_line_ends x = []"
      using \<open>no_line_ends v = []\<close> \<open>v \<noteq> []\<close> by (cases v) (simp_all split: if_splits del: dropWhile_eq_Nil_conv)
    then show ?thesis
      by (simp add: tcl_command_token_starts del: dropWhile_eq_Nil_conv)
  qed
  moreover have "tcl_command_token y v \<longleftrightarrow>
      y = tcl_sym_escaped_character \<and> (\<exists>d. no_line_ends v = [CH_BACKSLASH, d] \<and> d \<noteq> CH_LF)"
    if "no_line_ends v = CH_BACKSLASH # x" for x
  proof (cases v)
    case (Cons c z)
    then show ?thesis
      using that by (cases "c = CH_LF") (simp_all add: tcl_command_token_starts del: dropWhile_eq_Nil_conv)
  qed (use that in simp)
  ultimately show ?thesis
    unfolding w tcl_command_token_starts(2) using tcl_command_token_starts(1) [of y]
    by (cases "v = []"; cases "no_line_ends v") (auto simp del: dropWhile_eq_Nil_conv)
qed

lemma tcl_lexeme_line_end:
  assumes "tcl_lexeme y u v" and "no_line_ends (u @ v) = [] \<or> hd (no_line_ends (u @ v)) = CH_BACKSLASH"
  shows "tcl_lexeme y (CH_LF # u) v"
  using assms by (auto simp: tcl_lexeme_def sublist_Cons_right tcl_extra_iff intro: matches.Star_step [of _ "[CH_LF]", simplified])

lemma tcl_lexeme_command:
  "tcl_command_token y w \<Longrightarrow> \<exists>u v. w = u @ v \<and> tcl_lexeme y u v"
proof (induction w)
  case Nil
  then show ?case
    by (simp add: tcl_command_token_starts)
next
  case (Cons c w)
  show ?case
  proof (cases "tcl_grammar_token y (c # w)")
    case True
    then show ?thesis
      by (intro exI [of _ "[]"] exI [of _ "c # w"]) (simp add: tcl_lexeme_def matches.Star_Nil)
  next
    case False
    then have w: "c = CH_LF" "tcl_command_token y w" "no_line_ends w = [] \<or> hd (no_line_ends w) = CH_BACKSLASH"
      using Cons.prems tcl_command_token_cases [of y "c # w"] by auto
    obtain u v where "w = u @ v" "tcl_lexeme y u v"
      using Cons.IH [OF w(2)] by blast
    then show ?thesis
      using tcl_lexeme_line_end [of y u v] w(1,3) by (intro exI [of _ "CH_LF # u"] exI [of _ v]) auto
  qed
qed

lemma tcl_extra_step:
  "matches (Star tcl_extra) u \<Longrightarrow> CH_TAB \<le> c \<and> c \<le> CH_CR \<or> c = CH_SPACE \<Longrightarrow> matches (Star tcl_extra) (c # u)"
  "matches (Star tcl_extra) u \<Longrightarrow> matches (Star tcl_extra) (CH_BACKSLASH # CH_LF # u)"
  using matches.Star_step [of tcl_extra "[c]" u] matches.Star_step [of tcl_extra "[CH_BACKSLASH, CH_LF]" u]
  by (auto simp: tcl_extra_iff)

lemma tcl_lexeme_continued:
  "no_line_ends w = CH_BACKSLASH # CH_LF # z \<Longrightarrow> z = u' @ v \<Longrightarrow> tcl_lexeme y u' v \<Longrightarrow>
   \<exists>u. w = u @ v \<and> tcl_lexeme y u v"
proof (induction w)
  case Nil
  then show ?case by simp
next
  case (Cons c w)
  show ?case
  proof (cases "c = CH_LF")
    case True
    then obtain u where "w = u @ v" "tcl_lexeme y u v"
      using Cons by auto
    then show ?thesis
      using tcl_lexeme_line_end [of y u v] Cons.prems(1) True by (intro exI [of _ "CH_LF # u"]) auto
  next
    case False
    then have "c # w = CH_BACKSLASH # CH_LF # u' @ v"
      using Cons.prems(1,2) by simp
    moreover have "tcl_lexeme y (CH_BACKSLASH # CH_LF # u') v"
      using Cons.prems(3) by (auto simp: tcl_lexeme_def tcl_extra_step(2) sublist_Cons_right)
    ultimately show ?thesis
      by (intro exI [of _ "CH_BACKSLASH # CH_LF # u'"]) simp
  qed
qed

lemmas behind_command = behind_skipped [of "tcl_command_token y" for y, OF tcl_command_token_starts(1)]

lemma tcl_lexeme_skipped:
  "behind tcl_skipped (tcl_command_token y) w \<Longrightarrow> \<exists>u v. w = u @ v \<and> tcl_lexeme y u v"
proof (induction w rule: length_induct)
  case (1 w)
  obtain c x where w: "w = c # x"
    using "1.prems" behind_command(1) by (cases w) auto
  consider "tcl_command_token y w"
    | "CH_TAB \<le> c \<and> c \<le> CH_CR \<or> c = CH_SPACE" "c \<noteq> CH_LF" "behind tcl_skipped (tcl_command_token y) x"
    | z where "no_line_ends w = CH_BACKSLASH # CH_LF # z" "behind tcl_skipped (tcl_command_token y) z"
    using "1.prems" behind_command(2) [of y c x] by (auto simp: w)
  then show ?case
  proof cases
    case 1
    then show ?thesis by (rule tcl_lexeme_command)
  next
    case 2
    then obtain u v where uv: "x = u @ v" "tcl_lexeme y u v"
      using "1.IH" w by auto
    have "c \<noteq> CH_BACKSLASH"
      using 2 by auto
    then have "tcl_lexeme y (c # u) v"
      using uv(2) 2 by (auto simp: tcl_lexeme_def tcl_extra_step(1) sublist_Cons_right)
    then show ?thesis
      using uv(1) w by (intro exI [of _ "c # u"] exI [of _ v]) simp
  next
    case (3 z)
    have "length z < length w"
      using length_dropWhile_le [of "\<lambda>c. c = CH_LF" w] 3(1) by simp
    then obtain u v where "z = u @ v" "tcl_lexeme y u v"
      using "1.IH" 3(2) by blast
    then show ?thesis
      using tcl_lexeme_continued [OF 3(1)] by blast
  qed
qed

text \<open>Conversely, one line end before what the lexer reads.\<close>

lemma behind_line_end:
  assumes "behind tcl_skipped (tcl_command_token y) x"
    and "no_line_ends x = [] \<or> hd (no_line_ends x) = CH_BACKSLASH"
  shows "behind tcl_skipped (tcl_command_token y) (CH_LF # x)"
proof -
  obtain c w where x: "x = c # w"
    using assms(1) behind_command(1) by (cases x) auto
  have "\<not> (c \<noteq> CH_LF \<and> (CH_TAB \<le> c \<and> c \<le> CH_CR \<or> c = CH_SPACE))"
    using assms(2) by (auto simp: x)
  then consider "tcl_command_token y x"
    | z where "no_line_ends x = CH_BACKSLASH # CH_LF # z" "behind tcl_skipped (tcl_command_token y) z"
    using assms(1) behind_command(2) [of y c w] by (auto simp: x)
  then show ?thesis
  proof cases
    case 1
    then show ?thesis
      using tcl_command_token_cases [of y "CH_LF # x"] assms(2) by (auto intro: behind_refl)
  next
    case 2
    then show ?thesis
      using behind_command(2) [of y CH_LF x] by auto
  qed
qed

lemma tcl_skipped_lexeme:
  "tcl_lexeme y u v \<Longrightarrow> behind tcl_skipped (tcl_command_token y) (u @ v)"
proof (induction u rule: length_induct)
  case (1 u)
  show ?case
  proof (cases u)
    case Nil
    then show ?thesis
      using "1.prems" tcl_command_token_cases [of y v] by (auto simp: tcl_lexeme_def intro: behind_refl)
  next
    case (Cons c x)
    have lex: "matches (Star tcl_extra) (c # x)" "tcl_grammar_token y v" "\<not> tcl_bare_line_end False (c # x) v"
        "\<not> tcl_crlf_continued (c # x)"
      using "1.prems" by (simp_all add: tcl_lexeme_def Cons)
    obtain a b where "x = a @ b" "matches tcl_extra (c # a)" "matches (Star tcl_extra) b"
      using lex(1) by (auto simp: matches_Star_Cons)
    then consider (lf) "c = CH_LF" "matches (Star tcl_extra) x"
      | (ws) "CH_TAB \<le> c \<and> c \<le> CH_CR \<or> c = CH_SPACE" "c \<noteq> CH_LF" "matches (Star tcl_extra) x"
      | (continued) "c = CH_BACKSLASH" "x = CH_LF # b" "matches (Star tcl_extra) b"
      using lex(4) by (fastforce simp: tcl_extra_iff)
    then show ?thesis
    proof cases
      case lf
      then have "tcl_lexeme y x v" "no_line_ends (x @ v) = [] \<or> hd (no_line_ends (x @ v)) = CH_BACKSLASH"
        using lex by (auto simp: tcl_lexeme_def sublist_Cons_right)
      then show ?thesis
        using behind_line_end "1.IH" Cons lf(1) by auto
    next
      case ws
      then have "c \<noteq> CH_BACKSLASH" by auto
      then have "tcl_lexeme y x v"
        using lex ws by (auto simp: tcl_lexeme_def sublist_Cons_right)
      then have "behind tcl_skipped (tcl_command_token y) (x @ v)"
        using "1.IH" Cons by auto
      then show ?thesis
        using behind_step [of tcl_skipped "[c]"] ws(1,2) Cons by (auto simp: tcl_skipped_iff)
    next
      case continued
      then have "tcl_lexeme y b v"
        using lex by (auto simp: tcl_lexeme_def sublist_Cons_right)
      then have "behind tcl_skipped (tcl_command_token y) (b @ v)"
        using "1.IH" Cons continued(2) by auto
      then show ?thesis
        using behind_step [of tcl_skipped "[CH_BACKSLASH, CH_LF]"] continued(1,2) Cons by (auto simp: tcl_skipped_iff)
    qed
  qed
qed

lemma behind_skipped_lexeme:
  "behind tcl_skipped (tcl_command_token y) w \<longleftrightarrow> (\<exists>u v. w = u @ v \<and> tcl_lexeme y u v)"
  using tcl_lexeme_skipped tcl_skipped_lexeme by blast

section \<open>Properties\<close>

lemma tcl_on_text: "text_runtime R ahead marked \<Longrightarrow> lexer_on_text R ahead marked tcl_ts_lex 206"
  by (rule lexer_on_text.intro [OF _ tcl_switch.closed_switch_axioms])

text \<open>
  The keyword lexer recognises the keywords of the grammar behind the blanks and continued
  lines it skips, each as its own symbol, and nothing else.
\<close>

theorem tcl_keyword_words:
  "token_word tcl_ts_lex_keywords 0 y w \<longleftrightarrow>
     (\<exists>u v. w = u @ v \<and> matches (Star tcl_extra) u \<and> (y, v) \<in> set tcl_keywords)"
  by (simp add: tcl_keyword_language behind_def)



text \<open>
  Property C37. A line end that is followed by a backslash does not end a command. In every state
  that knows the line end as a token next to escaped characters, the lexer skips it and returns the escaped character
  behind it, which is longer; and a backslash before a carriage return is
  an escaped character, not a continued line, so a command over several lines that end in CR LF breaks
  at each of them.
\<close>

theorem tcl_line_end_before_backslash:
  assumes "text_runtime R ahead marked" and "s \<in> {1, 28, 29, 30, 31, 32, 33, 80}" and "0 < c" "c \<noteq> CH_LF"
    and "ahead (rt_state L) = CH_LF # CH_BACKSLASH # c # rest \<or>
      ahead (rt_state L) = CH_BACKSLASH # c # rest \<and> c = CH_CR"
  shows "\<exists>L'. lex_fn R tcl_ts_lex s L = Some (True, L') \<and>
    result_symbol L' = tcl_sym_escaped_character \<and> marked (rt_state L') = rest"
proof -
  have "munch tcl_ts_lex s None (ahead (rt_state L)) = Some (tcl_sym_escaped_character, rest)"
    using assms(2-5)
    by (cases rest)
      (auto simp: better_def tcl_switch.switch_eval tcl_lex_cases_def tcl_lex_defs)
  moreover have "s < 206" using assms(2) by auto
  ultimately show ?thesis
    using lexer_on_text.lex_fn_token [OF tcl_on_text [OF assms(1)]] by blast
qed

theorem tcl_line_end_before_backslash_witness:
  "\<exists>L'. lex_fn cursor_runtime tcl_ts_lex 30 (text_lexer [CH_BACKSLASH, CH_CR, CH_LF]) = Some (True, L') \<and>
    result_symbol L' = tcl_sym_escaped_character \<and> cur_marked (rt_state L') = [CH_LF]"
  by (rule tcl_line_end_before_backslash [OF cursor_text_runtime, where c = CH_CR]) (simp_all add: text_lexer_ahead)

end
