(* ===== verification/Tcl_Table.thy ===== *)
theory Tcl_Table
  imports Tcl_Lex Lr_Tables
begin

text \<open>
  The tables of the Tcl grammar (\<^verbatim>\<open>tree-sitter-tcl/src/parser.c\<close>): symbol names and
  metadata, fields, lex modes, parse table, small parse table, parse actions, external tokens, and the
  language object that ties them together. Each list is the C initialiser, designators included. All
  states but two are small.
\<close>

section \<open>Sizes\<close>

abbreviation (input) tcl_LANGUAGE_VERSION :: nat where "tcl_LANGUAGE_VERSION \<equiv> 15"
abbreviation (input) tcl_STATE_COUNT :: nat where "tcl_STATE_COUNT \<equiv> 717"
abbreviation (input) tcl_LARGE_STATE_COUNT :: nat where "tcl_LARGE_STATE_COUNT \<equiv> 2"
abbreviation (input) tcl_SYMBOL_COUNT :: nat where "tcl_SYMBOL_COUNT \<equiv> 120"
abbreviation (input) tcl_ALIAS_COUNT :: nat where "tcl_ALIAS_COUNT \<equiv> 0"
abbreviation (input) tcl_TOKEN_COUNT :: nat where "tcl_TOKEN_COUNT \<equiv> 69"
abbreviation (input) tcl_EXTERNAL_TOKEN_COUNT :: nat where "tcl_EXTERNAL_TOKEN_COUNT \<equiv> 2"
abbreviation (input) tcl_FIELD_COUNT :: nat where "tcl_FIELD_COUNT \<equiv> 7"
abbreviation (input) tcl_MAX_ALIAS_SEQUENCE_LENGTH :: nat where "tcl_MAX_ALIAS_SEQUENCE_LENGTH \<equiv> 9"
abbreviation (input) tcl_MAX_RESERVED_WORD_SET_SIZE :: nat where "tcl_MAX_RESERVED_WORD_SET_SIZE \<equiv> 0"
abbreviation (input) tcl_PRODUCTION_ID_COUNT :: nat where "tcl_PRODUCTION_ID_COUNT \<equiv> 23"
abbreviation (input) tcl_SUPERTYPE_COUNT :: nat where "tcl_SUPERTYPE_COUNT \<equiv> 0"

section \<open>Symbols and fields\<close>

definition tcl_ts_symbol_names :: "(nat \<times> string) list" where
  "tcl_ts_symbol_names =
    [(ts_builtin_sym_end, ''end''),
     (tcl_sym_simple_word, ''simple_word''),
     (tcl_anon_sym_LF, [CHR 0x0A]),
     (tcl_anon_sym_SEMI, '';''),
     (tcl_sym_comment, ''comment''),
     (tcl_anon_sym_regexp, ''regexp''),
     (tcl_anon_sym_while, ''while''),
     (tcl_anon_sym_expr, ''expr''),
     (tcl_anon_sym_foreach, ''foreach''),
     (tcl_anon_sym_global, ''global''),
     (tcl_anon_sym_namespace, ''namespace''),
     (tcl_anon_sym_try, ''try''),
     (tcl_anon_sym_on, ''on''),
     (tcl_anon_sym_error, ''error''),
     (tcl_anon_sym_finally, ''finally''),
     (tcl_sym_unpack, ''unpack''),
     (tcl_anon_sym_COLON_COLON, ''::''),
     (tcl_sym__ident_imm, ''_ident_imm''),
     (tcl_sym__ident, ''_ident''),
     (tcl_anon_sym_COLON_COLON2, ''::''),
     (tcl_anon_sym_LPAREN, ''(''),
     (tcl_anon_sym_RPAREN, '')''),
     (tcl_anon_sym_DOLLAR, ''$''),
     (tcl_anon_sym_LBRACE, ''{''),
     (tcl_aux_sym_variable_substitution_token1, ''variable_substitution_token1''),
     (tcl_anon_sym_RBRACE, ''}''),
     (tcl_anon_sym_set, ''set''),
     (tcl_anon_sym_proc, ''proc''),
     (tcl_sym_number, ''number''),
     (tcl_sym__boolean, ''_boolean''),
     (tcl_anon_sym_LPAREN2, ''(''),
     (tcl_anon_sym_DASH, ''-''),
     (tcl_anon_sym_PLUS, ''+''),
     (tcl_anon_sym_TILDE, ''~''),
     (tcl_anon_sym_BANG, ''!''),
     (tcl_anon_sym_STAR_STAR, ''**''),
     (tcl_anon_sym_SLASH, ''/''),
     (tcl_anon_sym_STAR, ''*''),
     (tcl_anon_sym_PERCENT, ''%''),
     (tcl_anon_sym_LT_LT, ''<<''),
     (tcl_anon_sym_GT_GT, ''>>''),
     (tcl_anon_sym_GT, ''>''),
     (tcl_anon_sym_LT, ''<''),
     (tcl_anon_sym_GT_EQ, ''>=''),
     (tcl_anon_sym_LT_EQ, ''<=''),
     (tcl_anon_sym_EQ_EQ, ''==''),
     (tcl_anon_sym_BANG_EQ, ''!=''),
     (tcl_anon_sym_eq, ''eq''),
     (tcl_anon_sym_ne, ''ne''),
     (tcl_anon_sym_in, ''in''),
     (tcl_anon_sym_ni, ''ni''),
     (tcl_anon_sym_AMP, ''&''),
     (tcl_anon_sym_CARET, ''^''),
     (tcl_anon_sym_PIPE, ''|''),
     (tcl_anon_sym_AMP_AMP, ''&&''),
     (tcl_anon_sym_PIPE_PIPE, ''||''),
     (tcl_anon_sym_QMARK, ''?''),
     (tcl_anon_sym_COLON, '':''),
     (tcl_anon_sym_elseif, ''elseif''),
     (tcl_anon_sym_else, ''else''),
     (tcl_anon_sym_if, ''if''),
     (tcl_anon_sym_catch, ''catch''),
     (tcl_anon_sym_DQUOTE, [CHR 0x22]),
     (tcl_sym_escaped_character, ''escaped_character''),
     (tcl_sym__quoted_word_content, ''_quoted_word_content''),
     (tcl_anon_sym_LBRACK, ''[''),
     (tcl_anon_sym_RBRACK, '']''),
     (tcl_sym__concat, ''_concat''),
     (tcl_sym__immediate, ''_immediate''),
     (tcl_sym_source_file, ''source_file''),
     (tcl_sym_regexp, ''regexp''),
     (tcl_sym_while, ''while''),
     (tcl_sym_expr_cmd, ''expr_cmd''),
     (tcl_sym_foreach, ''foreach''),
     (tcl_sym_global, ''global''),
     (tcl_sym_namespace, ''namespace''),
     (tcl_sym_try, ''try''),
     (tcl_sym_finally, ''finally''),
     (tcl_sym__command, ''_command''),
     (tcl_sym_command, ''command''),
     (tcl_sym_word_list, ''word_list''),
     (tcl_sym__word_simple, ''_word_simple''),
     (tcl_sym__concat_word, ''_concat_word''),
     (tcl_sym__ns_delim, ''_ns_delim''),
     (tcl_sym__id_immediate, ''id''),
     (tcl_sym_id, ''id''),
     (tcl_sym_array_index, ''array_index''),
     (tcl_sym_variable_substitution, ''variable_substitution''),
     (tcl_sym_braced_word, ''braced_word''),
     (tcl_sym_braced_word_simple, ''braced_word_simple''),
     (tcl_sym_set, ''set''),
     (tcl_sym_procedure, ''procedure''),
     (tcl_sym__argument_word, ''_argument_word''),
     (tcl_sym_argument, ''argument''),
     (tcl_sym_arguments, ''arguments''),
     (tcl_sym__expr_atom_no_brace, ''_expr_atom_no_brace''),
     (tcl_sym__expr, ''_expr''),
     (tcl_sym_expr, ''expr''),
     (tcl_sym_unary_expr, ''unary_expr''),
     (tcl_sym_binop_expr, ''binop_expr''),
     (tcl_sym_ternary_expr, ''ternary_expr''),
     (tcl_sym_elseif, ''elseif''),
     (tcl_sym_else, ''else''),
     (tcl_sym_if, ''if''),
     (tcl_sym__conditional, ''_conditional''),
     (tcl_sym_catch, ''catch''),
     (tcl_sym_quoted_word, ''quoted_word''),
     (tcl_sym_command_substitution, ''command_substitution''),
     (tcl_aux_sym_source_file_repeat1, ''source_file_repeat1''),
     (tcl_aux_sym_regexp_repeat1, ''regexp_repeat1''),
     (tcl_aux_sym_word_list_repeat1, ''word_list_repeat1''),
     (tcl_aux_sym__word_simple_repeat1, ''_word_simple_repeat1''),
     (tcl_aux_sym__concat_word_repeat1, ''_concat_word_repeat1''),
     (tcl_aux_sym__id_immediate_repeat1, ''_id_immediate_repeat1''),
     (tcl_aux_sym_braced_word_repeat1, ''braced_word_repeat1''),
     (tcl_aux_sym_braced_word_repeat2, ''braced_word_repeat2''),
     (tcl_aux_sym_braced_word_simple_repeat1, ''braced_word_simple_repeat1''),
     (tcl_aux_sym_arguments_repeat1, ''arguments_repeat1''),
     (tcl_aux_sym_if_repeat1, ''if_repeat1''),
     (tcl_aux_sym_quoted_word_repeat1, ''quoted_word_repeat1'')]"

definition tcl_ts_symbol_map :: "(nat \<times> TSSymbol) list" where
  "tcl_ts_symbol_map =
    [(ts_builtin_sym_end, ts_builtin_sym_end),
     (tcl_sym_simple_word, tcl_sym_simple_word),
     (tcl_anon_sym_LF, tcl_anon_sym_LF),
     (tcl_anon_sym_SEMI, tcl_anon_sym_SEMI),
     (tcl_sym_comment, tcl_sym_comment),
     (tcl_anon_sym_regexp, tcl_anon_sym_regexp),
     (tcl_anon_sym_while, tcl_anon_sym_while),
     (tcl_anon_sym_expr, tcl_anon_sym_expr),
     (tcl_anon_sym_foreach, tcl_anon_sym_foreach),
     (tcl_anon_sym_global, tcl_anon_sym_global),
     (tcl_anon_sym_namespace, tcl_anon_sym_namespace),
     (tcl_anon_sym_try, tcl_anon_sym_try),
     (tcl_anon_sym_on, tcl_anon_sym_on),
     (tcl_anon_sym_error, tcl_anon_sym_error),
     (tcl_anon_sym_finally, tcl_anon_sym_finally),
     (tcl_sym_unpack, tcl_sym_unpack),
     (tcl_anon_sym_COLON_COLON, tcl_anon_sym_COLON_COLON),
     (tcl_sym__ident_imm, tcl_sym__ident_imm),
     (tcl_sym__ident, tcl_sym__ident),
     (tcl_anon_sym_COLON_COLON2, tcl_anon_sym_COLON_COLON),
     (tcl_anon_sym_LPAREN, tcl_anon_sym_LPAREN),
     (tcl_anon_sym_RPAREN, tcl_anon_sym_RPAREN),
     (tcl_anon_sym_DOLLAR, tcl_anon_sym_DOLLAR),
     (tcl_anon_sym_LBRACE, tcl_anon_sym_LBRACE),
     (tcl_aux_sym_variable_substitution_token1, tcl_aux_sym_variable_substitution_token1),
     (tcl_anon_sym_RBRACE, tcl_anon_sym_RBRACE),
     (tcl_anon_sym_set, tcl_anon_sym_set),
     (tcl_anon_sym_proc, tcl_anon_sym_proc),
     (tcl_sym_number, tcl_sym_number),
     (tcl_sym__boolean, tcl_sym__boolean),
     (tcl_anon_sym_LPAREN2, tcl_anon_sym_LPAREN),
     (tcl_anon_sym_DASH, tcl_anon_sym_DASH),
     (tcl_anon_sym_PLUS, tcl_anon_sym_PLUS),
     (tcl_anon_sym_TILDE, tcl_anon_sym_TILDE),
     (tcl_anon_sym_BANG, tcl_anon_sym_BANG),
     (tcl_anon_sym_STAR_STAR, tcl_anon_sym_STAR_STAR),
     (tcl_anon_sym_SLASH, tcl_anon_sym_SLASH),
     (tcl_anon_sym_STAR, tcl_anon_sym_STAR),
     (tcl_anon_sym_PERCENT, tcl_anon_sym_PERCENT),
     (tcl_anon_sym_LT_LT, tcl_anon_sym_LT_LT),
     (tcl_anon_sym_GT_GT, tcl_anon_sym_GT_GT),
     (tcl_anon_sym_GT, tcl_anon_sym_GT),
     (tcl_anon_sym_LT, tcl_anon_sym_LT),
     (tcl_anon_sym_GT_EQ, tcl_anon_sym_GT_EQ),
     (tcl_anon_sym_LT_EQ, tcl_anon_sym_LT_EQ),
     (tcl_anon_sym_EQ_EQ, tcl_anon_sym_EQ_EQ),
     (tcl_anon_sym_BANG_EQ, tcl_anon_sym_BANG_EQ),
     (tcl_anon_sym_eq, tcl_anon_sym_eq),
     (tcl_anon_sym_ne, tcl_anon_sym_ne),
     (tcl_anon_sym_in, tcl_anon_sym_in),
     (tcl_anon_sym_ni, tcl_anon_sym_ni),
     (tcl_anon_sym_AMP, tcl_anon_sym_AMP),
     (tcl_anon_sym_CARET, tcl_anon_sym_CARET),
     (tcl_anon_sym_PIPE, tcl_anon_sym_PIPE),
     (tcl_anon_sym_AMP_AMP, tcl_anon_sym_AMP_AMP),
     (tcl_anon_sym_PIPE_PIPE, tcl_anon_sym_PIPE_PIPE),
     (tcl_anon_sym_QMARK, tcl_anon_sym_QMARK),
     (tcl_anon_sym_COLON, tcl_anon_sym_COLON),
     (tcl_anon_sym_elseif, tcl_anon_sym_elseif),
     (tcl_anon_sym_else, tcl_anon_sym_else),
     (tcl_anon_sym_if, tcl_anon_sym_if),
     (tcl_anon_sym_catch, tcl_anon_sym_catch),
     (tcl_anon_sym_DQUOTE, tcl_anon_sym_DQUOTE),
     (tcl_sym_escaped_character, tcl_sym_escaped_character),
     (tcl_sym__quoted_word_content, tcl_sym__quoted_word_content),
     (tcl_anon_sym_LBRACK, tcl_anon_sym_LBRACK),
     (tcl_anon_sym_RBRACK, tcl_anon_sym_RBRACK),
     (tcl_sym__concat, tcl_sym__concat),
     (tcl_sym__immediate, tcl_sym__immediate),
     (tcl_sym_source_file, tcl_sym_source_file),
     (tcl_sym_regexp, tcl_sym_regexp),
     (tcl_sym_while, tcl_sym_while),
     (tcl_sym_expr_cmd, tcl_sym_expr_cmd),
     (tcl_sym_foreach, tcl_sym_foreach),
     (tcl_sym_global, tcl_sym_global),
     (tcl_sym_namespace, tcl_sym_namespace),
     (tcl_sym_try, tcl_sym_try),
     (tcl_sym_finally, tcl_sym_finally),
     (tcl_sym__command, tcl_sym__command),
     (tcl_sym_command, tcl_sym_command),
     (tcl_sym_word_list, tcl_sym_word_list),
     (tcl_sym__word_simple, tcl_sym__word_simple),
     (tcl_sym__concat_word, tcl_sym__concat_word),
     (tcl_sym__ns_delim, tcl_sym__ns_delim),
     (tcl_sym__id_immediate, tcl_sym_id),
     (tcl_sym_id, tcl_sym_id),
     (tcl_sym_array_index, tcl_sym_array_index),
     (tcl_sym_variable_substitution, tcl_sym_variable_substitution),
     (tcl_sym_braced_word, tcl_sym_braced_word),
     (tcl_sym_braced_word_simple, tcl_sym_braced_word_simple),
     (tcl_sym_set, tcl_sym_set),
     (tcl_sym_procedure, tcl_sym_procedure),
     (tcl_sym__argument_word, tcl_sym__argument_word),
     (tcl_sym_argument, tcl_sym_argument),
     (tcl_sym_arguments, tcl_sym_arguments),
     (tcl_sym__expr_atom_no_brace, tcl_sym__expr_atom_no_brace),
     (tcl_sym__expr, tcl_sym__expr),
     (tcl_sym_expr, tcl_sym_expr),
     (tcl_sym_unary_expr, tcl_sym_unary_expr),
     (tcl_sym_binop_expr, tcl_sym_binop_expr),
     (tcl_sym_ternary_expr, tcl_sym_ternary_expr),
     (tcl_sym_elseif, tcl_sym_elseif),
     (tcl_sym_else, tcl_sym_else),
     (tcl_sym_if, tcl_sym_if),
     (tcl_sym__conditional, tcl_sym__conditional),
     (tcl_sym_catch, tcl_sym_catch),
     (tcl_sym_quoted_word, tcl_sym_quoted_word),
     (tcl_sym_command_substitution, tcl_sym_command_substitution),
     (tcl_aux_sym_source_file_repeat1, tcl_aux_sym_source_file_repeat1),
     (tcl_aux_sym_regexp_repeat1, tcl_aux_sym_regexp_repeat1),
     (tcl_aux_sym_word_list_repeat1, tcl_aux_sym_word_list_repeat1),
     (tcl_aux_sym__word_simple_repeat1, tcl_aux_sym__word_simple_repeat1),
     (tcl_aux_sym__concat_word_repeat1, tcl_aux_sym__concat_word_repeat1),
     (tcl_aux_sym__id_immediate_repeat1, tcl_aux_sym__id_immediate_repeat1),
     (tcl_aux_sym_braced_word_repeat1, tcl_aux_sym_braced_word_repeat1),
     (tcl_aux_sym_braced_word_repeat2, tcl_aux_sym_braced_word_repeat2),
     (tcl_aux_sym_braced_word_simple_repeat1, tcl_aux_sym_braced_word_simple_repeat1),
     (tcl_aux_sym_arguments_repeat1, tcl_aux_sym_arguments_repeat1),
     (tcl_aux_sym_if_repeat1, tcl_aux_sym_if_repeat1),
     (tcl_aux_sym_quoted_word_repeat1, tcl_aux_sym_quoted_word_repeat1)]"

text \<open>\<^verbatim>\<open>.supertype\<close> is left out of the initialisers, so it is false.\<close>

definition tcl_ts_symbol_metadata :: "(nat \<times> TSSymbolMetadata) list" where
  "tcl_ts_symbol_metadata =
    [(ts_builtin_sym_end, \<lparr>visible = False, named = True, supertype = False\<rparr>),
     (tcl_sym_simple_word, \<lparr>visible = True, named = True, supertype = False\<rparr>),
     (tcl_anon_sym_LF, \<lparr>visible = True, named = False, supertype = False\<rparr>),
     (tcl_anon_sym_SEMI, \<lparr>visible = True, named = False, supertype = False\<rparr>),
     (tcl_sym_comment, \<lparr>visible = True, named = True, supertype = False\<rparr>),
     (tcl_anon_sym_regexp, \<lparr>visible = True, named = False, supertype = False\<rparr>),
     (tcl_anon_sym_while, \<lparr>visible = True, named = False, supertype = False\<rparr>),
     (tcl_anon_sym_expr, \<lparr>visible = True, named = False, supertype = False\<rparr>),
     (tcl_anon_sym_foreach, \<lparr>visible = True, named = False, supertype = False\<rparr>),
     (tcl_anon_sym_global, \<lparr>visible = True, named = False, supertype = False\<rparr>),
     (tcl_anon_sym_namespace, \<lparr>visible = True, named = False, supertype = False\<rparr>),
     (tcl_anon_sym_try, \<lparr>visible = True, named = False, supertype = False\<rparr>),
     (tcl_anon_sym_on, \<lparr>visible = True, named = False, supertype = False\<rparr>),
     (tcl_anon_sym_error, \<lparr>visible = True, named = False, supertype = False\<rparr>),
     (tcl_anon_sym_finally, \<lparr>visible = True, named = False, supertype = False\<rparr>),
     (tcl_sym_unpack, \<lparr>visible = True, named = True, supertype = False\<rparr>),
     (tcl_anon_sym_COLON_COLON, \<lparr>visible = True, named = False, supertype = False\<rparr>),
     (tcl_sym__ident_imm, \<lparr>visible = False, named = True, supertype = False\<rparr>),
     (tcl_sym__ident, \<lparr>visible = False, named = True, supertype = False\<rparr>),
     (tcl_anon_sym_COLON_COLON2, \<lparr>visible = True, named = False, supertype =
       False\<rparr>),
     (tcl_anon_sym_LPAREN, \<lparr>visible = True, named = False, supertype = False\<rparr>),
     (tcl_anon_sym_RPAREN, \<lparr>visible = True, named = False, supertype = False\<rparr>),
     (tcl_anon_sym_DOLLAR, \<lparr>visible = True, named = False, supertype = False\<rparr>),
     (tcl_anon_sym_LBRACE, \<lparr>visible = True, named = False, supertype = False\<rparr>),
     (tcl_aux_sym_variable_substitution_token1, \<lparr>visible = False, named = False, supertype
       = False\<rparr>),
     (tcl_anon_sym_RBRACE, \<lparr>visible = True, named = False, supertype = False\<rparr>),
     (tcl_anon_sym_set, \<lparr>visible = True, named = False, supertype = False\<rparr>),
     (tcl_anon_sym_proc, \<lparr>visible = True, named = False, supertype = False\<rparr>),
     (tcl_sym_number, \<lparr>visible = True, named = True, supertype = False\<rparr>),
     (tcl_sym__boolean, \<lparr>visible = False, named = True, supertype = False\<rparr>),
     (tcl_anon_sym_LPAREN2, \<lparr>visible = True, named = False, supertype = False\<rparr>),
     (tcl_anon_sym_DASH, \<lparr>visible = True, named = False, supertype = False\<rparr>),
     (tcl_anon_sym_PLUS, \<lparr>visible = True, named = False, supertype = False\<rparr>),
     (tcl_anon_sym_TILDE, \<lparr>visible = True, named = False, supertype = False\<rparr>),
     (tcl_anon_sym_BANG, \<lparr>visible = True, named = False, supertype = False\<rparr>),
     (tcl_anon_sym_STAR_STAR, \<lparr>visible = True, named = False, supertype = False\<rparr>),
     (tcl_anon_sym_SLASH, \<lparr>visible = True, named = False, supertype = False\<rparr>),
     (tcl_anon_sym_STAR, \<lparr>visible = True, named = False, supertype = False\<rparr>),
     (tcl_anon_sym_PERCENT, \<lparr>visible = True, named = False, supertype = False\<rparr>),
     (tcl_anon_sym_LT_LT, \<lparr>visible = True, named = False, supertype = False\<rparr>),
     (tcl_anon_sym_GT_GT, \<lparr>visible = True, named = False, supertype = False\<rparr>),
     (tcl_anon_sym_GT, \<lparr>visible = True, named = False, supertype = False\<rparr>),
     (tcl_anon_sym_LT, \<lparr>visible = True, named = False, supertype = False\<rparr>),
     (tcl_anon_sym_GT_EQ, \<lparr>visible = True, named = False, supertype = False\<rparr>),
     (tcl_anon_sym_LT_EQ, \<lparr>visible = True, named = False, supertype = False\<rparr>),
     (tcl_anon_sym_EQ_EQ, \<lparr>visible = True, named = False, supertype = False\<rparr>),
     (tcl_anon_sym_BANG_EQ, \<lparr>visible = True, named = False, supertype = False\<rparr>),
     (tcl_anon_sym_eq, \<lparr>visible = True, named = False, supertype = False\<rparr>),
     (tcl_anon_sym_ne, \<lparr>visible = True, named = False, supertype = False\<rparr>),
     (tcl_anon_sym_in, \<lparr>visible = True, named = False, supertype = False\<rparr>),
     (tcl_anon_sym_ni, \<lparr>visible = True, named = False, supertype = False\<rparr>),
     (tcl_anon_sym_AMP, \<lparr>visible = True, named = False, supertype = False\<rparr>),
     (tcl_anon_sym_CARET, \<lparr>visible = True, named = False, supertype = False\<rparr>),
     (tcl_anon_sym_PIPE, \<lparr>visible = True, named = False, supertype = False\<rparr>),
     (tcl_anon_sym_AMP_AMP, \<lparr>visible = True, named = False, supertype = False\<rparr>),
     (tcl_anon_sym_PIPE_PIPE, \<lparr>visible = True, named = False, supertype = False\<rparr>),
     (tcl_anon_sym_QMARK, \<lparr>visible = True, named = False, supertype = False\<rparr>),
     (tcl_anon_sym_COLON, \<lparr>visible = True, named = False, supertype = False\<rparr>),
     (tcl_anon_sym_elseif, \<lparr>visible = True, named = False, supertype = False\<rparr>),
     (tcl_anon_sym_else, \<lparr>visible = True, named = False, supertype = False\<rparr>),
     (tcl_anon_sym_if, \<lparr>visible = True, named = False, supertype = False\<rparr>),
     (tcl_anon_sym_catch, \<lparr>visible = True, named = False, supertype = False\<rparr>),
     (tcl_anon_sym_DQUOTE, \<lparr>visible = True, named = False, supertype = False\<rparr>),
     (tcl_sym_escaped_character, \<lparr>visible = True, named = True, supertype = False\<rparr>),
     (tcl_sym__quoted_word_content, \<lparr>visible = False, named = True, supertype =
       False\<rparr>),
     (tcl_anon_sym_LBRACK, \<lparr>visible = True, named = False, supertype = False\<rparr>),
     (tcl_anon_sym_RBRACK, \<lparr>visible = True, named = False, supertype = False\<rparr>),
     (tcl_sym__concat, \<lparr>visible = False, named = True, supertype = False\<rparr>),
     (tcl_sym__immediate, \<lparr>visible = False, named = True, supertype = False\<rparr>),
     (tcl_sym_source_file, \<lparr>visible = True, named = True, supertype = False\<rparr>),
     (tcl_sym_regexp, \<lparr>visible = True, named = True, supertype = False\<rparr>),
     (tcl_sym_while, \<lparr>visible = True, named = True, supertype = False\<rparr>),
     (tcl_sym_expr_cmd, \<lparr>visible = True, named = True, supertype = False\<rparr>),
     (tcl_sym_foreach, \<lparr>visible = True, named = True, supertype = False\<rparr>),
     (tcl_sym_global, \<lparr>visible = True, named = True, supertype = False\<rparr>),
     (tcl_sym_namespace, \<lparr>visible = True, named = True, supertype = False\<rparr>),
     (tcl_sym_try, \<lparr>visible = True, named = True, supertype = False\<rparr>),
     (tcl_sym_finally, \<lparr>visible = True, named = True, supertype = False\<rparr>),
     (tcl_sym__command, \<lparr>visible = False, named = True, supertype = False\<rparr>),
     (tcl_sym_command, \<lparr>visible = True, named = True, supertype = False\<rparr>),
     (tcl_sym_word_list, \<lparr>visible = True, named = True, supertype = False\<rparr>),
     (tcl_sym__word_simple, \<lparr>visible = False, named = True, supertype = False\<rparr>),
     (tcl_sym__concat_word, \<lparr>visible = False, named = True, supertype = False\<rparr>),
     (tcl_sym__ns_delim, \<lparr>visible = False, named = True, supertype = False\<rparr>),
     (tcl_sym__id_immediate, \<lparr>visible = True, named = True, supertype = False\<rparr>),
     (tcl_sym_id, \<lparr>visible = True, named = True, supertype = False\<rparr>),
     (tcl_sym_array_index, \<lparr>visible = True, named = True, supertype = False\<rparr>),
     (tcl_sym_variable_substitution, \<lparr>visible = True, named = True, supertype =
       False\<rparr>),
     (tcl_sym_braced_word, \<lparr>visible = True, named = True, supertype = False\<rparr>),
     (tcl_sym_braced_word_simple, \<lparr>visible = True, named = True, supertype =
       False\<rparr>),
     (tcl_sym_set, \<lparr>visible = True, named = True, supertype = False\<rparr>),
     (tcl_sym_procedure, \<lparr>visible = True, named = True, supertype = False\<rparr>),
     (tcl_sym__argument_word, \<lparr>visible = False, named = True, supertype = False\<rparr>),
     (tcl_sym_argument, \<lparr>visible = True, named = True, supertype = False\<rparr>),
     (tcl_sym_arguments, \<lparr>visible = True, named = True, supertype = False\<rparr>),
     (tcl_sym__expr_atom_no_brace, \<lparr>visible = False, named = True, supertype =
       False\<rparr>),
     (tcl_sym__expr, \<lparr>visible = False, named = True, supertype = False\<rparr>),
     (tcl_sym_expr, \<lparr>visible = True, named = True, supertype = False\<rparr>),
     (tcl_sym_unary_expr, \<lparr>visible = True, named = True, supertype = False\<rparr>),
     (tcl_sym_binop_expr, \<lparr>visible = True, named = True, supertype = False\<rparr>),
     (tcl_sym_ternary_expr, \<lparr>visible = True, named = True, supertype = False\<rparr>),
     (tcl_sym_elseif, \<lparr>visible = True, named = True, supertype = False\<rparr>),
     (tcl_sym_else, \<lparr>visible = True, named = True, supertype = False\<rparr>),
     (tcl_sym_if, \<lparr>visible = True, named = True, supertype = False\<rparr>),
     (tcl_sym__conditional, \<lparr>visible = False, named = True, supertype = False\<rparr>),
     (tcl_sym_catch, \<lparr>visible = True, named = True, supertype = False\<rparr>),
     (tcl_sym_quoted_word, \<lparr>visible = True, named = True, supertype = False\<rparr>),
     (tcl_sym_command_substitution, \<lparr>visible = True, named = True, supertype =
       False\<rparr>),
     (tcl_aux_sym_source_file_repeat1, \<lparr>visible = False, named = False, supertype =
       False\<rparr>),
     (tcl_aux_sym_regexp_repeat1, \<lparr>visible = False, named = False, supertype =
       False\<rparr>),
     (tcl_aux_sym_word_list_repeat1, \<lparr>visible = False, named = False, supertype =
       False\<rparr>),
     (tcl_aux_sym__word_simple_repeat1, \<lparr>visible = False, named = False, supertype =
       False\<rparr>),
     (tcl_aux_sym__concat_word_repeat1, \<lparr>visible = False, named = False, supertype =
       False\<rparr>),
     (tcl_aux_sym__id_immediate_repeat1, \<lparr>visible = False, named = False, supertype =
       False\<rparr>),
     (tcl_aux_sym_braced_word_repeat1, \<lparr>visible = False, named = False, supertype =
       False\<rparr>),
     (tcl_aux_sym_braced_word_repeat2, \<lparr>visible = False, named = False, supertype =
       False\<rparr>),
     (tcl_aux_sym_braced_word_simple_repeat1, \<lparr>visible = False, named = False, supertype =
       False\<rparr>),
     (tcl_aux_sym_arguments_repeat1, \<lparr>visible = False, named = False, supertype =
       False\<rparr>),
     (tcl_aux_sym_if_repeat1, \<lparr>visible = False, named = False, supertype = False\<rparr>),
     (tcl_aux_sym_quoted_word_repeat1, \<lparr>visible = False, named = False, supertype =
       False\<rparr>)]"

abbreviation (input) tcl_field_alternative :: nat where "tcl_field_alternative \<equiv> 1"
abbreviation (input) tcl_field_arguments :: nat where "tcl_field_arguments \<equiv> 2"
abbreviation (input) tcl_field_body :: nat where "tcl_field_body \<equiv> 3"
abbreviation (input) tcl_field_condition :: nat where "tcl_field_condition \<equiv> 4"
abbreviation (input) tcl_field_consequence :: nat where "tcl_field_consequence \<equiv> 5"
abbreviation (input) tcl_field_default :: nat where "tcl_field_default \<equiv> 6"
abbreviation (input) tcl_field_name :: nat where "tcl_field_name \<equiv> 7"

definition tcl_ts_field_names :: "(nat \<times> string option) list" where
  "tcl_ts_field_names =
    [(0, None),
     (tcl_field_alternative, Some ''alternative''),
     (tcl_field_arguments, Some ''arguments''),
     (tcl_field_body, Some ''body''),
     (tcl_field_condition, Some ''condition''),
     (tcl_field_consequence, Some ''consequence''),
     (tcl_field_default, Some ''default''),
     (tcl_field_name, Some ''name'')]"

definition tcl_ts_field_map_slices :: "(nat \<times> TSMapSlice) list" where
  "tcl_ts_field_map_slices =
    [(1, \<lparr>slice_index = 0, slice_length = 1\<rparr>),
     (2, \<lparr>slice_index = 1, slice_length = 2\<rparr>),
     (3, \<lparr>slice_index = 3, slice_length = 1\<rparr>),
     (4, \<lparr>slice_index = 4, slice_length = 2\<rparr>),
     (5, \<lparr>slice_index = 6, slice_length = 3\<rparr>),
     (6, \<lparr>slice_index = 9, slice_length = 2\<rparr>),
     (7, \<lparr>slice_index = 11, slice_length = 2\<rparr>),
     (8, \<lparr>slice_index = 13, slice_length = 3\<rparr>),
     (9, \<lparr>slice_index = 16, slice_length = 3\<rparr>),
     (10, \<lparr>slice_index = 19, slice_length = 1\<rparr>),
     (11, \<lparr>slice_index = 20, slice_length = 3\<rparr>),
     (12, \<lparr>slice_index = 23, slice_length = 3\<rparr>),
     (13, \<lparr>slice_index = 26, slice_length = 1\<rparr>),
     (14, \<lparr>slice_index = 27, slice_length = 4\<rparr>),
     (15, \<lparr>slice_index = 31, slice_length = 4\<rparr>),
     (16, \<lparr>slice_index = 35, slice_length = 4\<rparr>),
     (17, \<lparr>slice_index = 39, slice_length = 4\<rparr>),
     (18, \<lparr>slice_index = 43, slice_length = 4\<rparr>),
     (19, \<lparr>slice_index = 47, slice_length = 2\<rparr>),
     (20, \<lparr>slice_index = 49, slice_length = 2\<rparr>),
     (21, \<lparr>slice_index = 51, slice_length = 5\<rparr>),
     (22, \<lparr>slice_index = 56, slice_length = 5\<rparr>)]"

definition tcl_ts_field_map_entries :: "(nat \<times> TSFieldMapEntry list) list" where
  "tcl_ts_field_map_entries =
    [(0, [\<lparr>field_id = tcl_field_name, child_index = 0, inherited = False\<rparr>]),
     (1, [\<lparr>field_id = tcl_field_name, child_index = 0, inherited = False\<rparr>,
       \<lparr>field_id = tcl_field_name, child_index = 1, inherited = False\<rparr>]),
     (3, [\<lparr>field_id = tcl_field_consequence, child_index = 1, inherited = False\<rparr>]),
     (4, [\<lparr>field_id = tcl_field_arguments, child_index = 1, inherited = False\<rparr>,
       \<lparr>field_id = tcl_field_name, child_index = 0, inherited = False\<rparr>]),
     (6, [\<lparr>field_id = tcl_field_arguments, child_index = 2, inherited = False\<rparr>,
       \<lparr>field_id = tcl_field_name, child_index = 0, inherited = False\<rparr>,
       \<lparr>field_id = tcl_field_name, child_index = 1, inherited = False\<rparr>]),
     (9, [\<lparr>field_id = tcl_field_condition, child_index = 1, inherited = False\<rparr>,
       \<lparr>field_id = tcl_field_consequence, child_index = 2, inherited = False\<rparr>]),
     (11, [\<lparr>field_id = tcl_field_consequence, child_index = 1, inherited = False\<rparr>,
       \<lparr>field_id = tcl_field_consequence, child_index = 2, inherited = False\<rparr>]),
     (13, [\<lparr>field_id = tcl_field_arguments, child_index = 2, inherited = False\<rparr>,
       \<lparr>field_id = tcl_field_body, child_index = 3, inherited = False\<rparr>,
       \<lparr>field_id = tcl_field_name, child_index = 1, inherited = False\<rparr>]),
     (16, [\<lparr>field_id = tcl_field_condition, child_index = 1, inherited = False\<rparr>,
       \<lparr>field_id = tcl_field_consequence, child_index = 2, inherited = False\<rparr>,
       \<lparr>field_id = tcl_field_consequence, child_index = 3, inherited = False\<rparr>]),
     (19, [\<lparr>field_id = tcl_field_alternative, child_index = 0, inherited = False\<rparr>]),
     (20, [\<lparr>field_id = tcl_field_alternative, child_index = 3, inherited = False\<rparr>,
       \<lparr>field_id = tcl_field_condition, child_index = 1, inherited = False\<rparr>,
       \<lparr>field_id = tcl_field_consequence, child_index = 2, inherited = False\<rparr>]),
     (23, [\<lparr>field_id = tcl_field_alternative, child_index = 3, inherited = True\<rparr>,
       \<lparr>field_id = tcl_field_condition, child_index = 1, inherited = False\<rparr>,
       \<lparr>field_id = tcl_field_consequence, child_index = 2, inherited = False\<rparr>]),
     (26, [\<lparr>field_id = tcl_field_name, child_index = 1, inherited = False\<rparr>]),
     (27, [\<lparr>field_id = tcl_field_arguments, child_index = 3, inherited = False\<rparr>,
       \<lparr>field_id = tcl_field_body, child_index = 4, inherited = False\<rparr>,
       \<lparr>field_id = tcl_field_name, child_index = 1, inherited = False\<rparr>,
       \<lparr>field_id = tcl_field_name, child_index = 2, inherited = False\<rparr>]),
     (31, [\<lparr>field_id = tcl_field_arguments, child_index = 2, inherited = False\<rparr>,
       \<lparr>field_id = tcl_field_body, child_index = 3, inherited = False\<rparr>,
       \<lparr>field_id = tcl_field_body, child_index = 4, inherited = False\<rparr>,
       \<lparr>field_id = tcl_field_name, child_index = 1, inherited = False\<rparr>]),
     (35, [\<lparr>field_id = tcl_field_alternative, child_index = 4, inherited = False\<rparr>,
       \<lparr>field_id = tcl_field_condition, child_index = 1, inherited = False\<rparr>,
       \<lparr>field_id = tcl_field_consequence, child_index = 2, inherited = False\<rparr>,
       \<lparr>field_id = tcl_field_consequence, child_index = 3, inherited = False\<rparr>]),
     (39, [\<lparr>field_id = tcl_field_alternative, child_index = 4, inherited = True\<rparr>,
       \<lparr>field_id = tcl_field_condition, child_index = 1, inherited = False\<rparr>,
       \<lparr>field_id = tcl_field_consequence, child_index = 2, inherited = False\<rparr>,
       \<lparr>field_id = tcl_field_consequence, child_index = 3, inherited = False\<rparr>]),
     (43, [\<lparr>field_id = tcl_field_alternative, child_index = 3, inherited = True\<rparr>,
       \<lparr>field_id = tcl_field_alternative, child_index = 4, inherited = False\<rparr>,
       \<lparr>field_id = tcl_field_condition, child_index = 1, inherited = False\<rparr>,
       \<lparr>field_id = tcl_field_consequence, child_index = 2, inherited = False\<rparr>]),
     (47, [\<lparr>field_id = tcl_field_alternative, child_index = 0, inherited = True\<rparr>,
       \<lparr>field_id = tcl_field_alternative, child_index = 1, inherited = True\<rparr>]),
     (49, [\<lparr>field_id = tcl_field_default, child_index = 2, inherited = False\<rparr>,
       \<lparr>field_id = tcl_field_name, child_index = 1, inherited = False\<rparr>]),
     (51, [\<lparr>field_id = tcl_field_arguments, child_index = 3, inherited = False\<rparr>,
       \<lparr>field_id = tcl_field_body, child_index = 4, inherited = False\<rparr>,
       \<lparr>field_id = tcl_field_body, child_index = 5, inherited = False\<rparr>,
       \<lparr>field_id = tcl_field_name, child_index = 1, inherited = False\<rparr>,
       \<lparr>field_id = tcl_field_name, child_index = 2, inherited = False\<rparr>]),
     (56, [\<lparr>field_id = tcl_field_alternative, child_index = 4, inherited = True\<rparr>,
       \<lparr>field_id = tcl_field_alternative, child_index = 5, inherited = False\<rparr>,
       \<lparr>field_id = tcl_field_condition, child_index = 1, inherited = False\<rparr>,
       \<lparr>field_id = tcl_field_consequence, child_index = 2, inherited = False\<rparr>,
       \<lparr>field_id = tcl_field_consequence, child_index = 3, inherited = False\<rparr>])]"

definition tcl_ts_alias_sequences :: "(nat \<times> (nat \<times> TSSymbol) list) list" where
  "tcl_ts_alias_sequences =
    [(0, [(0, 0)])]"

definition tcl_ts_non_terminal_alias_map :: "nat list" where
  "tcl_ts_non_terminal_alias_map =
    [0]"

definition tcl_ts_primary_state_ids :: "(nat \<times> TSStateId) list" where
  "tcl_ts_primary_state_ids =
    [(0, 0), (1, 1), (2, 2), (3, 3), (4, 4), (5, 5), (6, 4), (7, 3),
     (8, 3), (9, 4), (10, 3), (11, 4), (12, 4), (13, 3), (14, 14), (15, 15),
     (16, 15), (17, 15), (18, 15), (19, 15), (20, 20), (21, 20), (22, 20), (23, 20),
     (24, 20), (25, 20), (26, 20), (27, 20), (28, 20), (29, 20), (30, 30), (31, 31),
     (32, 32), (33, 33), (34, 34), (35, 35), (36, 36), (37, 37), (38, 38), (39, 39),
     (40, 40), (41, 41), (42, 42), (43, 43), (44, 44), (45, 45), (46, 46), (47, 47),
     (48, 48), (49, 49), (50, 50), (51, 51), (52, 52), (53, 53), (54, 54), (55, 55),
     (56, 56), (57, 57), (58, 58), (59, 59), (60, 60), (61, 61), (62, 62), (63, 63),
     (64, 64), (65, 65), (66, 66), (67, 65), (68, 66), (69, 65), (70, 70), (71, 66),
     (72, 72), (73, 73), (74, 74), (75, 75), (76, 76), (77, 73), (78, 78), (79, 79),
     (80, 80), (81, 81), (82, 82), (83, 83), (84, 84), (85, 85), (86, 86), (87, 87),
     (88, 88), (89, 89), (90, 90), (91, 91), (92, 78), (93, 78), (94, 73), (95, 95),
     (96, 96), (97, 97), (98, 98), (99, 99), (100, 100), (101, 34), (102, 96), (103, 30),
     (104, 31), (105, 97), (106, 32), (107, 33), (108, 108), (109, 109), (110, 100), (111, 98),
     (112, 99), (113, 113), (114, 114), (115, 109), (116, 34), (117, 31), (118, 35), (119, 119),
     (120, 37), (121, 121), (122, 122), (123, 123), (124, 124), (125, 125), (126, 126), (127,
       127),
     (128, 128), (129, 129), (130, 125), (131, 126), (132, 36), (133, 133), (134, 125), (135,
       126),
     (136, 125), (137, 126), (138, 138), (139, 32), (140, 126), (141, 141), (142, 33), (143, 125),
     (144, 31), (145, 30), (146, 146), (147, 147), (148, 148), (149, 149), (150, 150), (151, 31),
     (152, 152), (153, 153), (154, 154), (155, 155), (156, 156), (157, 155), (158, 158), (159,
       159),
     (160, 160), (161, 161), (162, 108), (163, 163), (164, 164), (165, 165), (166, 32), (167,
       149),
     (168, 153), (169, 158), (170, 160), (171, 34), (172, 172), (173, 164), (174, 153), (175,
       146),
     (176, 176), (177, 154), (178, 178), (179, 165), (180, 150), (181, 32), (182, 182), (183,
       183),
     (184, 163), (185, 156), (186, 176), (187, 147), (188, 33), (189, 34), (190, 156), (191, 30),
     (192, 152), (193, 193), (194, 30), (195, 193), (196, 114), (197, 31), (198, 198), (199, 172),
     (200, 113), (201, 33), (202, 202), (203, 203), (204, 127), (205, 31), (206, 206), (207, 207),
     (208, 43), (209, 203), (210, 210), (211, 40), (212, 212), (213, 32), (214, 33), (215, 34),
     (216, 31), (217, 30), (218, 218), (219, 219), (220, 220), (221, 221), (222, 31), (223, 223),
     (224, 224), (225, 225), (226, 138), (227, 108), (228, 220), (229, 229), (230, 121), (231,
       231),
     (232, 42), (233, 207), (234, 210), (235, 235), (236, 36), (237, 133), (238, 238), (239, 239),
     (240, 239), (241, 212), (242, 225), (243, 223), (244, 229), (245, 245), (246, 141), (247,
       219),
     (248, 119), (249, 221), (250, 224), (251, 231), (252, 44), (253, 41), (254, 123), (255, 212),
     (256, 124), (257, 245), (258, 129), (259, 35), (260, 37), (261, 122), (262, 202), (263, 206),
     (264, 264), (265, 32), (266, 206), (267, 33), (268, 206), (269, 34), (270, 206), (271, 35),
     (272, 206), (273, 38), (274, 206), (275, 206), (276, 30), (277, 206), (278, 206), (279, 206),
     (280, 206), (281, 238), (282, 218), (283, 36), (284, 284), (285, 37), (286, 286), (287, 287),
     (288, 35), (289, 178), (290, 182), (291, 291), (292, 183), (293, 293), (294, 287), (295,
       287),
     (296, 296), (297, 287), (298, 127), (299, 159), (300, 161), (301, 287), (302, 36), (303, 37),
     (304, 198), (305, 35), (306, 148), (307, 307), (308, 182), (309, 43), (310, 235), (311, 33),
     (312, 198), (313, 42), (314, 34), (315, 183), (316, 159), (317, 44), (318, 161), (319, 319),
     (320, 41), (321, 35), (322, 30), (323, 31), (324, 324), (325, 40), (326, 324), (327, 35),
     (328, 36), (329, 329), (330, 32), (331, 264), (332, 37), (333, 307), (334, 319), (335, 38),
     (336, 35), (337, 108), (338, 38), (339, 329), (340, 296), (341, 341), (342, 342), (343, 43),
     (344, 41), (345, 345), (346, 40), (347, 341), (348, 342), (349, 286), (350, 36), (351, 41),
     (352, 345), (353, 341), (354, 345), (355, 341), (356, 345), (357, 341), (358, 345), (359,
       341),
     (360, 360), (361, 58), (362, 362), (363, 363), (364, 264), (365, 42), (366, 42), (367, 284),
     (368, 235), (369, 38), (370, 345), (371, 342), (372, 293), (373, 341), (374, 37), (375, 342),
     (376, 345), (377, 127), (378, 44), (379, 291), (380, 380), (381, 43), (382, 44), (383, 383),
     (384, 59), (385, 385), (386, 363), (387, 59), (388, 40), (389, 342), (390, 345), (391, 58),
     (392, 38), (393, 341), (394, 342), (395, 341), (396, 345), (397, 32), (398, 198), (399, 182),
     (400, 183), (401, 401), (402, 159), (403, 161), (404, 31), (405, 405), (406, 36), (407, 33),
     (408, 34), (409, 37), (410, 30), (411, 38), (412, 36), (413, 31), (414, 37), (415, 286),
     (416, 35), (417, 417), (418, 307), (419, 293), (420, 38), (421, 329), (422, 422), (423, 291),
     (424, 324), (425, 296), (426, 426), (427, 41), (428, 39), (429, 43), (430, 42), (431, 44),
     (432, 40), (433, 32), (434, 434), (435, 33), (436, 34), (437, 30), (438, 438), (439, 422),
     (440, 127), (441, 41), (442, 42), (443, 264), (444, 43), (445, 44), (446, 38), (447, 40),
     (448, 405), (449, 383), (450, 235), (451, 438), (452, 360), (453, 362), (454, 380), (455,
       108),
     (456, 456), (457, 457), (458, 44), (459, 459), (460, 293), (461, 461), (462, 462), (463, 41),
     (464, 324), (465, 465), (466, 466), (467, 467), (468, 461), (469, 467), (470, 470), (471,
       471),
     (472, 471), (473, 291), (474, 474), (475, 43), (476, 42), (477, 38), (478, 465), (479, 417),
     (480, 461), (481, 474), (482, 482), (483, 465), (484, 38), (485, 461), (486, 486), (487, 40),
     (488, 474), (489, 465), (490, 307), (491, 108), (492, 461), (493, 465), (494, 40), (495,
       474),
     (496, 296), (497, 465), (498, 329), (499, 465), (500, 465), (501, 465), (502, 465), (503,
       465),
     (504, 43), (505, 36), (506, 44), (507, 35), (508, 35), (509, 474), (510, 510), (511, 511),
     (512, 37), (513, 286), (514, 329), (515, 161), (516, 59), (517, 307), (518, 324), (519, 363),
     (520, 520), (521, 198), (522, 291), (523, 264), (524, 456), (525, 296), (526, 286), (527,
       293),
     (528, 457), (529, 235), (530, 182), (531, 183), (532, 520), (533, 159), (534, 58), (535, 43),
     (536, 536), (537, 537), (538, 39), (539, 539), (540, 434), (541, 511), (542, 470), (543,
       486),
     (544, 544), (545, 40), (546, 546), (547, 547), (548, 38), (549, 549), (550, 550), (551, 551),
     (552, 482), (553, 553), (554, 554), (555, 555), (556, 556), (557, 557), (558, 558), (559,
       559),
     (560, 560), (561, 561), (562, 562), (563, 563), (564, 426), (565, 565), (566, 363), (567,
       567),
     (568, 568), (569, 569), (570, 462), (571, 571), (572, 557), (573, 573), (574, 559), (575,
       575),
     (576, 576), (577, 577), (578, 578), (579, 579), (580, 580), (581, 41), (582, 582), (583,
       583),
     (584, 58), (585, 585), (586, 586), (587, 587), (588, 42), (589, 589), (590, 44), (591, 59),
     (592, 592), (593, 555), (594, 459), (595, 198), (596, 576), (597, 182), (598, 183), (599,
       159),
     (600, 161), (601, 577), (602, 602), (603, 603), (604, 604), (605, 605), (606, 606), (607,
       578),
     (608, 567), (609, 609), (610, 544), (611, 611), (612, 539), (613, 604), (614, 614), (615,
       603),
     (616, 605), (617, 606), (618, 609), (619, 603), (620, 536), (621, 604), (622, 609), (623,
       603),
     (624, 605), (625, 606), (626, 609), (627, 547), (628, 579), (629, 604), (630, 582), (631,
       606),
     (632, 605), (633, 606), (634, 609), (635, 562), (636, 426), (637, 604), (638, 605), (639,
       603),
     (640, 605), (641, 606), (642, 609), (643, 550), (644, 604), (645, 603), (646, 605), (647,
       606),
     (648, 609), (649, 604), (650, 605), (651, 609), (652, 605), (653, 609), (654, 654), (655,
       606),
     (656, 558), (657, 554), (658, 614), (659, 659), (660, 660), (661, 561), (662, 609), (663,
       603),
     (664, 664), (665, 665), (666, 666), (667, 569), (668, 573), (669, 669), (670, 670), (671,
       434),
     (672, 537), (673, 604), (674, 605), (675, 660), (676, 605), (677, 666), (678, 553), (679,
       660),
     (680, 603), (681, 583), (682, 660), (683, 603), (684, 585), (685, 660), (686, 546), (687,
       605),
     (688, 660), (689, 606), (690, 606), (691, 660), (692, 586), (693, 549), (694, 660), (695,
       587),
     (696, 660), (697, 660), (698, 609), (699, 571), (700, 603), (701, 560), (702, 604), (703,
       551),
     (704, 665), (705, 705), (706, 563), (707, 659), (708, 611), (709, 669), (710, 556), (711,
       604),
     (712, 589), (713, 575), (714, 705), (715, 665), (716, 609)]"

section \<open>Lex modes\<close>

text \<open>A member left out of an initialiser is zero.\<close>

definition tcl_lex_modes_0 :: "(nat \<times> TSLexerMode) list" where
  "tcl_lex_modes_0 =
    [(0, \<lparr>lex_state = 0, external_lex_state = 1, reserved_word_set_id = 0\<rparr>),
     (1, \<lparr>lex_state = 80, external_lex_state = 0, reserved_word_set_id = 0\<rparr>),
     (2, \<lparr>lex_state = 80, external_lex_state = 0, reserved_word_set_id = 0\<rparr>),
     (3, \<lparr>lex_state = 80, external_lex_state = 0, reserved_word_set_id = 0\<rparr>),
     (4, \<lparr>lex_state = 80, external_lex_state = 0, reserved_word_set_id = 0\<rparr>),
     (5, \<lparr>lex_state = 80, external_lex_state = 0, reserved_word_set_id = 0\<rparr>),
     (6, \<lparr>lex_state = 80, external_lex_state = 0, reserved_word_set_id = 0\<rparr>),
     (7, \<lparr>lex_state = 80, external_lex_state = 0, reserved_word_set_id = 0\<rparr>),
     (8, \<lparr>lex_state = 80, external_lex_state = 0, reserved_word_set_id = 0\<rparr>),
     (9, \<lparr>lex_state = 80, external_lex_state = 0, reserved_word_set_id = 0\<rparr>),
     (10, \<lparr>lex_state = 80, external_lex_state = 0, reserved_word_set_id = 0\<rparr>),
     (11, \<lparr>lex_state = 80, external_lex_state = 0, reserved_word_set_id = 0\<rparr>),
     (12, \<lparr>lex_state = 80, external_lex_state = 0, reserved_word_set_id = 0\<rparr>),
     (13, \<lparr>lex_state = 80, external_lex_state = 0, reserved_word_set_id = 0\<rparr>),
     (14, \<lparr>lex_state = 80, external_lex_state = 0, reserved_word_set_id = 0\<rparr>),
     (15, \<lparr>lex_state = 39, external_lex_state = 0, reserved_word_set_id = 0\<rparr>),
     (16, \<lparr>lex_state = 39, external_lex_state = 0, reserved_word_set_id = 0\<rparr>),
     (17, \<lparr>lex_state = 39, external_lex_state = 0, reserved_word_set_id = 0\<rparr>),
     (18, \<lparr>lex_state = 39, external_lex_state = 0, reserved_word_set_id = 0\<rparr>),
     (19, \<lparr>lex_state = 39, external_lex_state = 0, reserved_word_set_id = 0\<rparr>),
     (20, \<lparr>lex_state = 39, external_lex_state = 0, reserved_word_set_id = 0\<rparr>),
     (21, \<lparr>lex_state = 39, external_lex_state = 0, reserved_word_set_id = 0\<rparr>),
     (22, \<lparr>lex_state = 39, external_lex_state = 0, reserved_word_set_id = 0\<rparr>),
     (23, \<lparr>lex_state = 39, external_lex_state = 0, reserved_word_set_id = 0\<rparr>),
     (24, \<lparr>lex_state = 39, external_lex_state = 0, reserved_word_set_id = 0\<rparr>),
     (25, \<lparr>lex_state = 39, external_lex_state = 0, reserved_word_set_id = 0\<rparr>),
     (26, \<lparr>lex_state = 39, external_lex_state = 0, reserved_word_set_id = 0\<rparr>),
     (27, \<lparr>lex_state = 39, external_lex_state = 0, reserved_word_set_id = 0\<rparr>),
     (28, \<lparr>lex_state = 39, external_lex_state = 0, reserved_word_set_id = 0\<rparr>),
     (29, \<lparr>lex_state = 39, external_lex_state = 0, reserved_word_set_id = 0\<rparr>),
     (30, \<lparr>lex_state = 35, external_lex_state = 0, reserved_word_set_id = 0\<rparr>),
     (31, \<lparr>lex_state = 35, external_lex_state = 0, reserved_word_set_id = 0\<rparr>),
     (32, \<lparr>lex_state = 35, external_lex_state = 0, reserved_word_set_id = 0\<rparr>),
     (33, \<lparr>lex_state = 35, external_lex_state = 0, reserved_word_set_id = 0\<rparr>),
     (34, \<lparr>lex_state = 35, external_lex_state = 0, reserved_word_set_id = 0\<rparr>),
     (35, \<lparr>lex_state = 35, external_lex_state = 0, reserved_word_set_id = 0\<rparr>),
     (36, \<lparr>lex_state = 36, external_lex_state = 0, reserved_word_set_id = 0\<rparr>),
     (37, \<lparr>lex_state = 36, external_lex_state = 0, reserved_word_set_id = 0\<rparr>),
     (38, \<lparr>lex_state = 36, external_lex_state = 0, reserved_word_set_id = 0\<rparr>),
     (39, \<lparr>lex_state = 36, external_lex_state = 0, reserved_word_set_id = 0\<rparr>),
     (40, \<lparr>lex_state = 36, external_lex_state = 0, reserved_word_set_id = 0\<rparr>),
     (41, \<lparr>lex_state = 36, external_lex_state = 0, reserved_word_set_id = 0\<rparr>),
     (42, \<lparr>lex_state = 36, external_lex_state = 0, reserved_word_set_id = 0\<rparr>),
     (43, \<lparr>lex_state = 36, external_lex_state = 0, reserved_word_set_id = 0\<rparr>),
     (44, \<lparr>lex_state = 36, external_lex_state = 0, reserved_word_set_id = 0\<rparr>),
     (45, \<lparr>lex_state = 36, external_lex_state = 0, reserved_word_set_id = 0\<rparr>),
     (46, \<lparr>lex_state = 36, external_lex_state = 0, reserved_word_set_id = 0\<rparr>),
     (47, \<lparr>lex_state = 36, external_lex_state = 0, reserved_word_set_id = 0\<rparr>),
     (48, \<lparr>lex_state = 36, external_lex_state = 0, reserved_word_set_id = 0\<rparr>),
     (49, \<lparr>lex_state = 36, external_lex_state = 0, reserved_word_set_id = 0\<rparr>),
     (50, \<lparr>lex_state = 36, external_lex_state = 0, reserved_word_set_id = 0\<rparr>),
     (51, \<lparr>lex_state = 36, external_lex_state = 0, reserved_word_set_id = 0\<rparr>),
     (52, \<lparr>lex_state = 36, external_lex_state = 0, reserved_word_set_id = 0\<rparr>),
     (53, \<lparr>lex_state = 36, external_lex_state = 0, reserved_word_set_id = 0\<rparr>),
     (54, \<lparr>lex_state = 36, external_lex_state = 0, reserved_word_set_id = 0\<rparr>),
     (55, \<lparr>lex_state = 36, external_lex_state = 0, reserved_word_set_id = 0\<rparr>),
     (56, \<lparr>lex_state = 36, external_lex_state = 0, reserved_word_set_id = 0\<rparr>),
     (57, \<lparr>lex_state = 36, external_lex_state = 0, reserved_word_set_id = 0\<rparr>),
     (58, \<lparr>lex_state = 36, external_lex_state = 0, reserved_word_set_id = 0\<rparr>),
     (59, \<lparr>lex_state = 36, external_lex_state = 0, reserved_word_set_id = 0\<rparr>),
     (60, \<lparr>lex_state = 36, external_lex_state = 0, reserved_word_set_id = 0\<rparr>),
     (61, \<lparr>lex_state = 36, external_lex_state = 0, reserved_word_set_id = 0\<rparr>),
     (62, \<lparr>lex_state = 36, external_lex_state = 0, reserved_word_set_id = 0\<rparr>),
     (63, \<lparr>lex_state = 36, external_lex_state = 0, reserved_word_set_id = 0\<rparr>),
     (64, \<lparr>lex_state = 35, external_lex_state = 0, reserved_word_set_id = 0\<rparr>),
     (65, \<lparr>lex_state = 35, external_lex_state = 0, reserved_word_set_id = 0\<rparr>),
     (66, \<lparr>lex_state = 35, external_lex_state = 0, reserved_word_set_id = 0\<rparr>),
     (67, \<lparr>lex_state = 35, external_lex_state = 0, reserved_word_set_id = 0\<rparr>),
     (68, \<lparr>lex_state = 35, external_lex_state = 0, reserved_word_set_id = 0\<rparr>),
     (69, \<lparr>lex_state = 35, external_lex_state = 0, reserved_word_set_id = 0\<rparr>),
     (70, \<lparr>lex_state = 80, external_lex_state = 0, reserved_word_set_id = 0\<rparr>),
     (71, \<lparr>lex_state = 35, external_lex_state = 0, reserved_word_set_id = 0\<rparr>),
     (72, \<lparr>lex_state = 80, external_lex_state = 0, reserved_word_set_id = 0\<rparr>),
     (73, \<lparr>lex_state = 34, external_lex_state = 0, reserved_word_set_id = 0\<rparr>),
     (74, \<lparr>lex_state = 34, external_lex_state = 0, reserved_word_set_id = 0\<rparr>),
     (75, \<lparr>lex_state = 34, external_lex_state = 0, reserved_word_set_id = 0\<rparr>),
     (76, \<lparr>lex_state = 34, external_lex_state = 0, reserved_word_set_id = 0\<rparr>),
     (77, \<lparr>lex_state = 34, external_lex_state = 0, reserved_word_set_id = 0\<rparr>),
     (78, \<lparr>lex_state = 34, external_lex_state = 0, reserved_word_set_id = 0\<rparr>),
     (79, \<lparr>lex_state = 34, external_lex_state = 0, reserved_word_set_id = 0\<rparr>),
     (80, \<lparr>lex_state = 34, external_lex_state = 0, reserved_word_set_id = 0\<rparr>),
     (81, \<lparr>lex_state = 34, external_lex_state = 0, reserved_word_set_id = 0\<rparr>),
     (82, \<lparr>lex_state = 34, external_lex_state = 0, reserved_word_set_id = 0\<rparr>),
     (83, \<lparr>lex_state = 34, external_lex_state = 0, reserved_word_set_id = 0\<rparr>),
     (84, \<lparr>lex_state = 34, external_lex_state = 0, reserved_word_set_id = 0\<rparr>),
     (85, \<lparr>lex_state = 34, external_lex_state = 0, reserved_word_set_id = 0\<rparr>),
     (86, \<lparr>lex_state = 34, external_lex_state = 0, reserved_word_set_id = 0\<rparr>),
     (87, \<lparr>lex_state = 34, external_lex_state = 0, reserved_word_set_id = 0\<rparr>),
     (88, \<lparr>lex_state = 34, external_lex_state = 0, reserved_word_set_id = 0\<rparr>),
     (89, \<lparr>lex_state = 34, external_lex_state = 0, reserved_word_set_id = 0\<rparr>),
     (90, \<lparr>lex_state = 34, external_lex_state = 0, reserved_word_set_id = 0\<rparr>),
     (91, \<lparr>lex_state = 34, external_lex_state = 0, reserved_word_set_id = 0\<rparr>),
     (92, \<lparr>lex_state = 34, external_lex_state = 0, reserved_word_set_id = 0\<rparr>),
     (93, \<lparr>lex_state = 34, external_lex_state = 0, reserved_word_set_id = 0\<rparr>),
     (94, \<lparr>lex_state = 34, external_lex_state = 0, reserved_word_set_id = 0\<rparr>),
     (95, \<lparr>lex_state = 34, external_lex_state = 0, reserved_word_set_id = 0\<rparr>),
     (96, \<lparr>lex_state = 29, external_lex_state = 0, reserved_word_set_id = 0\<rparr>),
     (97, \<lparr>lex_state = 29, external_lex_state = 0, reserved_word_set_id = 0\<rparr>),
     (98, \<lparr>lex_state = 29, external_lex_state = 0, reserved_word_set_id = 0\<rparr>),
     (99, \<lparr>lex_state = 29, external_lex_state = 0, reserved_word_set_id = 0\<rparr>)]"

definition tcl_lex_modes_1 :: "(nat \<times> TSLexerMode) list" where
  "tcl_lex_modes_1 =
    [(100, \<lparr>lex_state = 32, external_lex_state = 0, reserved_word_set_id = 0\<rparr>),
     (101, \<lparr>lex_state = 28, external_lex_state = 2, reserved_word_set_id = 0\<rparr>),
     (102, \<lparr>lex_state = 43, external_lex_state = 0, reserved_word_set_id = 0\<rparr>),
     (103, \<lparr>lex_state = 28, external_lex_state = 2, reserved_word_set_id = 0\<rparr>),
     (104, \<lparr>lex_state = 28, external_lex_state = 2, reserved_word_set_id = 0\<rparr>),
     (105, \<lparr>lex_state = 43, external_lex_state = 0, reserved_word_set_id = 0\<rparr>),
     (106, \<lparr>lex_state = 28, external_lex_state = 2, reserved_word_set_id = 0\<rparr>),
     (107, \<lparr>lex_state = 28, external_lex_state = 2, reserved_word_set_id = 0\<rparr>),
     (108, \<lparr>lex_state = 29, external_lex_state = 2, reserved_word_set_id = 0\<rparr>),
     (109, \<lparr>lex_state = 43, external_lex_state = 0, reserved_word_set_id = 0\<rparr>),
     (110, \<lparr>lex_state = 44, external_lex_state = 0, reserved_word_set_id = 0\<rparr>),
     (111, \<lparr>lex_state = 43, external_lex_state = 0, reserved_word_set_id = 0\<rparr>),
     (112, \<lparr>lex_state = 43, external_lex_state = 0, reserved_word_set_id = 0\<rparr>),
     (113, \<lparr>lex_state = 32, external_lex_state = 0, reserved_word_set_id = 0\<rparr>),
     (114, \<lparr>lex_state = 32, external_lex_state = 0, reserved_word_set_id = 0\<rparr>),
     (115, \<lparr>lex_state = 43, external_lex_state = 0, reserved_word_set_id = 0\<rparr>),
     (116, \<lparr>lex_state = 40, external_lex_state = 2, reserved_word_set_id = 0\<rparr>),
     (117, \<lparr>lex_state = 40, external_lex_state = 2, reserved_word_set_id = 0\<rparr>),
     (118, \<lparr>lex_state = 28, external_lex_state = 2, reserved_word_set_id = 0\<rparr>),
     (119, \<lparr>lex_state = 29, external_lex_state = 0, reserved_word_set_id = 0\<rparr>),
     (120, \<lparr>lex_state = 29, external_lex_state = 2, reserved_word_set_id = 0\<rparr>),
     (121, \<lparr>lex_state = 29, external_lex_state = 0, reserved_word_set_id = 0\<rparr>),
     (122, \<lparr>lex_state = 31, external_lex_state = 0, reserved_word_set_id = 0\<rparr>),
     (123, \<lparr>lex_state = 31, external_lex_state = 0, reserved_word_set_id = 0\<rparr>),
     (124, \<lparr>lex_state = 31, external_lex_state = 0, reserved_word_set_id = 0\<rparr>),
     (125, \<lparr>lex_state = 44, external_lex_state = 0, reserved_word_set_id = 0\<rparr>),
     (126, \<lparr>lex_state = 44, external_lex_state = 0, reserved_word_set_id = 0\<rparr>),
     (127, \<lparr>lex_state = 29, external_lex_state = 2, reserved_word_set_id = 0\<rparr>),
     (128, \<lparr>lex_state = 44, external_lex_state = 0, reserved_word_set_id = 0\<rparr>),
     (129, \<lparr>lex_state = 29, external_lex_state = 0, reserved_word_set_id = 0\<rparr>),
     (130, \<lparr>lex_state = 44, external_lex_state = 0, reserved_word_set_id = 0\<rparr>),
     (131, \<lparr>lex_state = 44, external_lex_state = 0, reserved_word_set_id = 0\<rparr>),
     (132, \<lparr>lex_state = 29, external_lex_state = 2, reserved_word_set_id = 0\<rparr>),
     (133, \<lparr>lex_state = 31, external_lex_state = 0, reserved_word_set_id = 0\<rparr>),
     (134, \<lparr>lex_state = 44, external_lex_state = 0, reserved_word_set_id = 0\<rparr>),
     (135, \<lparr>lex_state = 44, external_lex_state = 0, reserved_word_set_id = 0\<rparr>),
     (136, \<lparr>lex_state = 44, external_lex_state = 0, reserved_word_set_id = 0\<rparr>),
     (137, \<lparr>lex_state = 44, external_lex_state = 0, reserved_word_set_id = 0\<rparr>),
     (138, \<lparr>lex_state = 29, external_lex_state = 0, reserved_word_set_id = 0\<rparr>),
     (139, \<lparr>lex_state = 40, external_lex_state = 2, reserved_word_set_id = 0\<rparr>),
     (140, \<lparr>lex_state = 44, external_lex_state = 0, reserved_word_set_id = 0\<rparr>),
     (141, \<lparr>lex_state = 29, external_lex_state = 0, reserved_word_set_id = 0\<rparr>),
     (142, \<lparr>lex_state = 40, external_lex_state = 2, reserved_word_set_id = 0\<rparr>),
     (143, \<lparr>lex_state = 44, external_lex_state = 0, reserved_word_set_id = 0\<rparr>),
     (144, \<lparr>lex_state = 31, external_lex_state = 0, reserved_word_set_id = 0\<rparr>),
     (145, \<lparr>lex_state = 40, external_lex_state = 2, reserved_word_set_id = 0\<rparr>),
     (146, \<lparr>lex_state = 43, external_lex_state = 0, reserved_word_set_id = 0\<rparr>),
     (147, \<lparr>lex_state = 43, external_lex_state = 0, reserved_word_set_id = 0\<rparr>),
     (148, \<lparr>lex_state = 29, external_lex_state = 0, reserved_word_set_id = 0\<rparr>),
     (149, \<lparr>lex_state = 43, external_lex_state = 0, reserved_word_set_id = 0\<rparr>),
     (150, \<lparr>lex_state = 43, external_lex_state = 0, reserved_word_set_id = 0\<rparr>),
     (151, \<lparr>lex_state = 12, external_lex_state = 2, reserved_word_set_id = 0\<rparr>),
     (152, \<lparr>lex_state = 43, external_lex_state = 0, reserved_word_set_id = 0\<rparr>),
     (153, \<lparr>lex_state = 43, external_lex_state = 0, reserved_word_set_id = 0\<rparr>),
     (154, \<lparr>lex_state = 43, external_lex_state = 0, reserved_word_set_id = 0\<rparr>),
     (155, \<lparr>lex_state = 43, external_lex_state = 0, reserved_word_set_id = 0\<rparr>),
     (156, \<lparr>lex_state = 46, external_lex_state = 0, reserved_word_set_id = 0\<rparr>),
     (157, \<lparr>lex_state = 43, external_lex_state = 0, reserved_word_set_id = 0\<rparr>),
     (158, \<lparr>lex_state = 43, external_lex_state = 0, reserved_word_set_id = 0\<rparr>),
     (159, \<lparr>lex_state = 29, external_lex_state = 2, reserved_word_set_id = 0\<rparr>),
     (160, \<lparr>lex_state = 43, external_lex_state = 0, reserved_word_set_id = 0\<rparr>),
     (161, \<lparr>lex_state = 29, external_lex_state = 2, reserved_word_set_id = 0\<rparr>),
     (162, \<lparr>lex_state = 43, external_lex_state = 2, reserved_word_set_id = 0\<rparr>),
     (163, \<lparr>lex_state = 46, external_lex_state = 0, reserved_word_set_id = 0\<rparr>),
     (164, \<lparr>lex_state = 43, external_lex_state = 0, reserved_word_set_id = 0\<rparr>),
     (165, \<lparr>lex_state = 43, external_lex_state = 0, reserved_word_set_id = 0\<rparr>),
     (166, \<lparr>lex_state = 12, external_lex_state = 2, reserved_word_set_id = 0\<rparr>),
     (167, \<lparr>lex_state = 43, external_lex_state = 0, reserved_word_set_id = 0\<rparr>),
     (168, \<lparr>lex_state = 43, external_lex_state = 0, reserved_word_set_id = 0\<rparr>),
     (169, \<lparr>lex_state = 43, external_lex_state = 0, reserved_word_set_id = 0\<rparr>),
     (170, \<lparr>lex_state = 43, external_lex_state = 0, reserved_word_set_id = 0\<rparr>),
     (171, \<lparr>lex_state = 12, external_lex_state = 2, reserved_word_set_id = 0\<rparr>),
     (172, \<lparr>lex_state = 46, external_lex_state = 0, reserved_word_set_id = 0\<rparr>),
     (173, \<lparr>lex_state = 43, external_lex_state = 0, reserved_word_set_id = 0\<rparr>),
     (174, \<lparr>lex_state = 43, external_lex_state = 0, reserved_word_set_id = 0\<rparr>),
     (175, \<lparr>lex_state = 43, external_lex_state = 0, reserved_word_set_id = 0\<rparr>),
     (176, \<lparr>lex_state = 46, external_lex_state = 0, reserved_word_set_id = 0\<rparr>),
     (177, \<lparr>lex_state = 43, external_lex_state = 0, reserved_word_set_id = 0\<rparr>),
     (178, \<lparr>lex_state = 29, external_lex_state = 0, reserved_word_set_id = 0\<rparr>),
     (179, \<lparr>lex_state = 43, external_lex_state = 0, reserved_word_set_id = 0\<rparr>),
     (180, \<lparr>lex_state = 43, external_lex_state = 0, reserved_word_set_id = 0\<rparr>),
     (181, \<lparr>lex_state = 41, external_lex_state = 2, reserved_word_set_id = 0\<rparr>),
     (182, \<lparr>lex_state = 29, external_lex_state = 2, reserved_word_set_id = 0\<rparr>),
     (183, \<lparr>lex_state = 29, external_lex_state = 2, reserved_word_set_id = 0\<rparr>),
     (184, \<lparr>lex_state = 46, external_lex_state = 0, reserved_word_set_id = 0\<rparr>),
     (185, \<lparr>lex_state = 46, external_lex_state = 0, reserved_word_set_id = 0\<rparr>),
     (186, \<lparr>lex_state = 46, external_lex_state = 0, reserved_word_set_id = 0\<rparr>),
     (187, \<lparr>lex_state = 43, external_lex_state = 0, reserved_word_set_id = 0\<rparr>),
     (188, \<lparr>lex_state = 41, external_lex_state = 2, reserved_word_set_id = 0\<rparr>),
     (189, \<lparr>lex_state = 41, external_lex_state = 2, reserved_word_set_id = 0\<rparr>),
     (190, \<lparr>lex_state = 46, external_lex_state = 0, reserved_word_set_id = 0\<rparr>),
     (191, \<lparr>lex_state = 12, external_lex_state = 2, reserved_word_set_id = 0\<rparr>),
     (192, \<lparr>lex_state = 43, external_lex_state = 0, reserved_word_set_id = 0\<rparr>),
     (193, \<lparr>lex_state = 43, external_lex_state = 0, reserved_word_set_id = 0\<rparr>),
     (194, \<lparr>lex_state = 41, external_lex_state = 2, reserved_word_set_id = 0\<rparr>),
     (195, \<lparr>lex_state = 43, external_lex_state = 0, reserved_word_set_id = 0\<rparr>),
     (196, \<lparr>lex_state = 44, external_lex_state = 0, reserved_word_set_id = 0\<rparr>),
     (197, \<lparr>lex_state = 41, external_lex_state = 2, reserved_word_set_id = 0\<rparr>),
     (198, \<lparr>lex_state = 29, external_lex_state = 2, reserved_word_set_id = 0\<rparr>),
     (199, \<lparr>lex_state = 46, external_lex_state = 0, reserved_word_set_id = 0\<rparr>)]"

definition tcl_lex_modes_2 :: "(nat \<times> TSLexerMode) list" where
  "tcl_lex_modes_2 =
    [(200, \<lparr>lex_state = 44, external_lex_state = 0, reserved_word_set_id = 0\<rparr>),
     (201, \<lparr>lex_state = 12, external_lex_state = 2, reserved_word_set_id = 0\<rparr>),
     (202, \<lparr>lex_state = 44, external_lex_state = 0, reserved_word_set_id = 0\<rparr>),
     (203, \<lparr>lex_state = 44, external_lex_state = 0, reserved_word_set_id = 0\<rparr>),
     (204, \<lparr>lex_state = 43, external_lex_state = 2, reserved_word_set_id = 0\<rparr>),
     (205, \<lparr>lex_state = 40, external_lex_state = 0, reserved_word_set_id = 0\<rparr>),
     (206, \<lparr>lex_state = 44, external_lex_state = 0, reserved_word_set_id = 0\<rparr>),
     (207, \<lparr>lex_state = 44, external_lex_state = 0, reserved_word_set_id = 0\<rparr>),
     (208, \<lparr>lex_state = 29, external_lex_state = 2, reserved_word_set_id = 0\<rparr>),
     (209, \<lparr>lex_state = 44, external_lex_state = 0, reserved_word_set_id = 0\<rparr>),
     (210, \<lparr>lex_state = 44, external_lex_state = 0, reserved_word_set_id = 0\<rparr>),
     (211, \<lparr>lex_state = 29, external_lex_state = 2, reserved_word_set_id = 0\<rparr>),
     (212, \<lparr>lex_state = 44, external_lex_state = 0, reserved_word_set_id = 0\<rparr>),
     (213, \<lparr>lex_state = 35, external_lex_state = 2, reserved_word_set_id = 0\<rparr>),
     (214, \<lparr>lex_state = 35, external_lex_state = 2, reserved_word_set_id = 0\<rparr>),
     (215, \<lparr>lex_state = 35, external_lex_state = 2, reserved_word_set_id = 0\<rparr>),
     (216, \<lparr>lex_state = 41, external_lex_state = 0, reserved_word_set_id = 0\<rparr>),
     (217, \<lparr>lex_state = 35, external_lex_state = 2, reserved_word_set_id = 0\<rparr>),
     (218, \<lparr>lex_state = 44, external_lex_state = 0, reserved_word_set_id = 0\<rparr>),
     (219, \<lparr>lex_state = 44, external_lex_state = 0, reserved_word_set_id = 0\<rparr>),
     (220, \<lparr>lex_state = 44, external_lex_state = 0, reserved_word_set_id = 0\<rparr>),
     (221, \<lparr>lex_state = 44, external_lex_state = 0, reserved_word_set_id = 0\<rparr>),
     (222, \<lparr>lex_state = 35, external_lex_state = 2, reserved_word_set_id = 0\<rparr>),
     (223, \<lparr>lex_state = 44, external_lex_state = 0, reserved_word_set_id = 0\<rparr>),
     (224, \<lparr>lex_state = 44, external_lex_state = 0, reserved_word_set_id = 0\<rparr>),
     (225, \<lparr>lex_state = 44, external_lex_state = 0, reserved_word_set_id = 0\<rparr>),
     (226, \<lparr>lex_state = 43, external_lex_state = 0, reserved_word_set_id = 0\<rparr>),
     (227, \<lparr>lex_state = 12, external_lex_state = 2, reserved_word_set_id = 0\<rparr>),
     (228, \<lparr>lex_state = 44, external_lex_state = 0, reserved_word_set_id = 0\<rparr>),
     (229, \<lparr>lex_state = 44, external_lex_state = 0, reserved_word_set_id = 0\<rparr>),
     (230, \<lparr>lex_state = 43, external_lex_state = 0, reserved_word_set_id = 0\<rparr>),
     (231, \<lparr>lex_state = 44, external_lex_state = 0, reserved_word_set_id = 0\<rparr>),
     (232, \<lparr>lex_state = 29, external_lex_state = 2, reserved_word_set_id = 0\<rparr>),
     (233, \<lparr>lex_state = 44, external_lex_state = 0, reserved_word_set_id = 0\<rparr>),
     (234, \<lparr>lex_state = 44, external_lex_state = 0, reserved_word_set_id = 0\<rparr>),
     (235, \<lparr>lex_state = 29, external_lex_state = 2, reserved_word_set_id = 0\<rparr>),
     (236, \<lparr>lex_state = 43, external_lex_state = 2, reserved_word_set_id = 0\<rparr>),
     (237, \<lparr>lex_state = 41, external_lex_state = 0, reserved_word_set_id = 0\<rparr>),
     (238, \<lparr>lex_state = 44, external_lex_state = 0, reserved_word_set_id = 0\<rparr>),
     (239, \<lparr>lex_state = 44, external_lex_state = 0, reserved_word_set_id = 0\<rparr>),
     (240, \<lparr>lex_state = 44, external_lex_state = 0, reserved_word_set_id = 0\<rparr>),
     (241, \<lparr>lex_state = 44, external_lex_state = 0, reserved_word_set_id = 0\<rparr>),
     (242, \<lparr>lex_state = 44, external_lex_state = 0, reserved_word_set_id = 0\<rparr>),
     (243, \<lparr>lex_state = 44, external_lex_state = 0, reserved_word_set_id = 0\<rparr>),
     (244, \<lparr>lex_state = 44, external_lex_state = 0, reserved_word_set_id = 0\<rparr>),
     (245, \<lparr>lex_state = 44, external_lex_state = 0, reserved_word_set_id = 0\<rparr>),
     (246, \<lparr>lex_state = 43, external_lex_state = 0, reserved_word_set_id = 0\<rparr>),
     (247, \<lparr>lex_state = 44, external_lex_state = 0, reserved_word_set_id = 0\<rparr>),
     (248, \<lparr>lex_state = 43, external_lex_state = 0, reserved_word_set_id = 0\<rparr>),
     (249, \<lparr>lex_state = 44, external_lex_state = 0, reserved_word_set_id = 0\<rparr>),
     (250, \<lparr>lex_state = 44, external_lex_state = 0, reserved_word_set_id = 0\<rparr>),
     (251, \<lparr>lex_state = 44, external_lex_state = 0, reserved_word_set_id = 0\<rparr>),
     (252, \<lparr>lex_state = 29, external_lex_state = 2, reserved_word_set_id = 0\<rparr>),
     (253, \<lparr>lex_state = 29, external_lex_state = 2, reserved_word_set_id = 0\<rparr>),
     (254, \<lparr>lex_state = 41, external_lex_state = 0, reserved_word_set_id = 0\<rparr>),
     (255, \<lparr>lex_state = 44, external_lex_state = 0, reserved_word_set_id = 0\<rparr>),
     (256, \<lparr>lex_state = 41, external_lex_state = 0, reserved_word_set_id = 0\<rparr>),
     (257, \<lparr>lex_state = 44, external_lex_state = 0, reserved_word_set_id = 0\<rparr>),
     (258, \<lparr>lex_state = 43, external_lex_state = 0, reserved_word_set_id = 0\<rparr>),
     (259, \<lparr>lex_state = 31, external_lex_state = 0, reserved_word_set_id = 0\<rparr>),
     (260, \<lparr>lex_state = 43, external_lex_state = 2, reserved_word_set_id = 0\<rparr>),
     (261, \<lparr>lex_state = 41, external_lex_state = 0, reserved_word_set_id = 0\<rparr>),
     (262, \<lparr>lex_state = 44, external_lex_state = 0, reserved_word_set_id = 0\<rparr>),
     (263, \<lparr>lex_state = 44, external_lex_state = 0, reserved_word_set_id = 0\<rparr>),
     (264, \<lparr>lex_state = 29, external_lex_state = 2, reserved_word_set_id = 0\<rparr>),
     (265, \<lparr>lex_state = 40, external_lex_state = 0, reserved_word_set_id = 0\<rparr>),
     (266, \<lparr>lex_state = 44, external_lex_state = 0, reserved_word_set_id = 0\<rparr>),
     (267, \<lparr>lex_state = 40, external_lex_state = 0, reserved_word_set_id = 0\<rparr>),
     (268, \<lparr>lex_state = 44, external_lex_state = 0, reserved_word_set_id = 0\<rparr>),
     (269, \<lparr>lex_state = 40, external_lex_state = 0, reserved_word_set_id = 0\<rparr>),
     (270, \<lparr>lex_state = 44, external_lex_state = 0, reserved_word_set_id = 0\<rparr>),
     (271, \<lparr>lex_state = 40, external_lex_state = 2, reserved_word_set_id = 0\<rparr>),
     (272, \<lparr>lex_state = 44, external_lex_state = 0, reserved_word_set_id = 0\<rparr>),
     (273, \<lparr>lex_state = 29, external_lex_state = 2, reserved_word_set_id = 0\<rparr>),
     (274, \<lparr>lex_state = 44, external_lex_state = 0, reserved_word_set_id = 0\<rparr>),
     (275, \<lparr>lex_state = 44, external_lex_state = 0, reserved_word_set_id = 0\<rparr>),
     (276, \<lparr>lex_state = 40, external_lex_state = 0, reserved_word_set_id = 0\<rparr>),
     (277, \<lparr>lex_state = 44, external_lex_state = 0, reserved_word_set_id = 0\<rparr>),
     (278, \<lparr>lex_state = 44, external_lex_state = 0, reserved_word_set_id = 0\<rparr>),
     (279, \<lparr>lex_state = 44, external_lex_state = 0, reserved_word_set_id = 0\<rparr>),
     (280, \<lparr>lex_state = 44, external_lex_state = 0, reserved_word_set_id = 0\<rparr>),
     (281, \<lparr>lex_state = 44, external_lex_state = 0, reserved_word_set_id = 0\<rparr>),
     (282, \<lparr>lex_state = 44, external_lex_state = 0, reserved_word_set_id = 0\<rparr>),
     (283, \<lparr>lex_state = 12, external_lex_state = 2, reserved_word_set_id = 0\<rparr>),
     (284, \<lparr>lex_state = 29, external_lex_state = 0, reserved_word_set_id = 0\<rparr>),
     (285, \<lparr>lex_state = 12, external_lex_state = 2, reserved_word_set_id = 0\<rparr>),
     (286, \<lparr>lex_state = 29, external_lex_state = 0, reserved_word_set_id = 0\<rparr>),
     (287, \<lparr>lex_state = 44, external_lex_state = 0, reserved_word_set_id = 0\<rparr>),
     (288, \<lparr>lex_state = 12, external_lex_state = 2, reserved_word_set_id = 0\<rparr>),
     (289, \<lparr>lex_state = 43, external_lex_state = 0, reserved_word_set_id = 0\<rparr>),
     (290, \<lparr>lex_state = 43, external_lex_state = 2, reserved_word_set_id = 0\<rparr>),
     (291, \<lparr>lex_state = 29, external_lex_state = 0, reserved_word_set_id = 0\<rparr>),
     (292, \<lparr>lex_state = 43, external_lex_state = 2, reserved_word_set_id = 0\<rparr>),
     (293, \<lparr>lex_state = 29, external_lex_state = 0, reserved_word_set_id = 0\<rparr>),
     (294, \<lparr>lex_state = 44, external_lex_state = 0, reserved_word_set_id = 0\<rparr>),
     (295, \<lparr>lex_state = 44, external_lex_state = 0, reserved_word_set_id = 0\<rparr>),
     (296, \<lparr>lex_state = 29, external_lex_state = 0, reserved_word_set_id = 0\<rparr>),
     (297, \<lparr>lex_state = 44, external_lex_state = 0, reserved_word_set_id = 0\<rparr>),
     (298, \<lparr>lex_state = 12, external_lex_state = 2, reserved_word_set_id = 0\<rparr>),
     (299, \<lparr>lex_state = 43, external_lex_state = 2, reserved_word_set_id = 0\<rparr>)]"

definition tcl_lex_modes_3 :: "(nat \<times> TSLexerMode) list" where
  "tcl_lex_modes_3 =
    [(300, \<lparr>lex_state = 43, external_lex_state = 2, reserved_word_set_id = 0\<rparr>),
     (301, \<lparr>lex_state = 44, external_lex_state = 0, reserved_word_set_id = 0\<rparr>),
     (302, \<lparr>lex_state = 44, external_lex_state = 2, reserved_word_set_id = 0\<rparr>),
     (303, \<lparr>lex_state = 44, external_lex_state = 2, reserved_word_set_id = 0\<rparr>),
     (304, \<lparr>lex_state = 43, external_lex_state = 2, reserved_word_set_id = 0\<rparr>),
     (305, \<lparr>lex_state = 41, external_lex_state = 2, reserved_word_set_id = 0\<rparr>),
     (306, \<lparr>lex_state = 43, external_lex_state = 0, reserved_word_set_id = 0\<rparr>),
     (307, \<lparr>lex_state = 44, external_lex_state = 2, reserved_word_set_id = 0\<rparr>),
     (308, \<lparr>lex_state = 12, external_lex_state = 2, reserved_word_set_id = 0\<rparr>),
     (309, \<lparr>lex_state = 43, external_lex_state = 2, reserved_word_set_id = 0\<rparr>),
     (310, \<lparr>lex_state = 43, external_lex_state = 2, reserved_word_set_id = 0\<rparr>),
     (311, \<lparr>lex_state = 42, external_lex_state = 0, reserved_word_set_id = 0\<rparr>),
     (312, \<lparr>lex_state = 12, external_lex_state = 2, reserved_word_set_id = 0\<rparr>),
     (313, \<lparr>lex_state = 43, external_lex_state = 2, reserved_word_set_id = 0\<rparr>),
     (314, \<lparr>lex_state = 42, external_lex_state = 0, reserved_word_set_id = 0\<rparr>),
     (315, \<lparr>lex_state = 12, external_lex_state = 2, reserved_word_set_id = 0\<rparr>),
     (316, \<lparr>lex_state = 12, external_lex_state = 2, reserved_word_set_id = 0\<rparr>),
     (317, \<lparr>lex_state = 43, external_lex_state = 2, reserved_word_set_id = 0\<rparr>),
     (318, \<lparr>lex_state = 12, external_lex_state = 2, reserved_word_set_id = 0\<rparr>),
     (319, \<lparr>lex_state = 43, external_lex_state = 0, reserved_word_set_id = 0\<rparr>),
     (320, \<lparr>lex_state = 43, external_lex_state = 2, reserved_word_set_id = 0\<rparr>),
     (321, \<lparr>lex_state = 41, external_lex_state = 0, reserved_word_set_id = 0\<rparr>),
     (322, \<lparr>lex_state = 42, external_lex_state = 0, reserved_word_set_id = 0\<rparr>),
     (323, \<lparr>lex_state = 42, external_lex_state = 0, reserved_word_set_id = 0\<rparr>),
     (324, \<lparr>lex_state = 44, external_lex_state = 2, reserved_word_set_id = 0\<rparr>),
     (325, \<lparr>lex_state = 43, external_lex_state = 2, reserved_word_set_id = 0\<rparr>),
     (326, \<lparr>lex_state = 43, external_lex_state = 2, reserved_word_set_id = 0\<rparr>),
     (327, \<lparr>lex_state = 40, external_lex_state = 0, reserved_word_set_id = 0\<rparr>),
     (328, \<lparr>lex_state = 43, external_lex_state = 0, reserved_word_set_id = 0\<rparr>),
     (329, \<lparr>lex_state = 43, external_lex_state = 2, reserved_word_set_id = 0\<rparr>),
     (330, \<lparr>lex_state = 42, external_lex_state = 0, reserved_word_set_id = 0\<rparr>),
     (331, \<lparr>lex_state = 43, external_lex_state = 2, reserved_word_set_id = 0\<rparr>),
     (332, \<lparr>lex_state = 43, external_lex_state = 0, reserved_word_set_id = 0\<rparr>),
     (333, \<lparr>lex_state = 43, external_lex_state = 2, reserved_word_set_id = 0\<rparr>),
     (334, \<lparr>lex_state = 43, external_lex_state = 0, reserved_word_set_id = 0\<rparr>),
     (335, \<lparr>lex_state = 32, external_lex_state = 0, reserved_word_set_id = 0\<rparr>),
     (336, \<lparr>lex_state = 35, external_lex_state = 2, reserved_word_set_id = 0\<rparr>),
     (337, \<lparr>lex_state = 35, external_lex_state = 2, reserved_word_set_id = 0\<rparr>),
     (338, \<lparr>lex_state = 43, external_lex_state = 2, reserved_word_set_id = 0\<rparr>),
     (339, \<lparr>lex_state = 44, external_lex_state = 2, reserved_word_set_id = 0\<rparr>),
     (340, \<lparr>lex_state = 43, external_lex_state = 0, reserved_word_set_id = 0\<rparr>),
     (341, \<lparr>lex_state = 49, external_lex_state = 0, reserved_word_set_id = 0\<rparr>),
     (342, \<lparr>lex_state = 43, external_lex_state = 0, reserved_word_set_id = 0\<rparr>),
     (343, \<lparr>lex_state = 12, external_lex_state = 2, reserved_word_set_id = 0\<rparr>),
     (344, \<lparr>lex_state = 12, external_lex_state = 2, reserved_word_set_id = 0\<rparr>),
     (345, \<lparr>lex_state = 49, external_lex_state = 0, reserved_word_set_id = 0\<rparr>),
     (346, \<lparr>lex_state = 12, external_lex_state = 2, reserved_word_set_id = 0\<rparr>),
     (347, \<lparr>lex_state = 49, external_lex_state = 0, reserved_word_set_id = 0\<rparr>),
     (348, \<lparr>lex_state = 43, external_lex_state = 0, reserved_word_set_id = 0\<rparr>),
     (349, \<lparr>lex_state = 43, external_lex_state = 0, reserved_word_set_id = 0\<rparr>),
     (350, \<lparr>lex_state = 35, external_lex_state = 2, reserved_word_set_id = 0\<rparr>),
     (351, \<lparr>lex_state = 44, external_lex_state = 2, reserved_word_set_id = 0\<rparr>),
     (352, \<lparr>lex_state = 49, external_lex_state = 0, reserved_word_set_id = 0\<rparr>),
     (353, \<lparr>lex_state = 49, external_lex_state = 0, reserved_word_set_id = 0\<rparr>),
     (354, \<lparr>lex_state = 49, external_lex_state = 0, reserved_word_set_id = 0\<rparr>),
     (355, \<lparr>lex_state = 49, external_lex_state = 0, reserved_word_set_id = 0\<rparr>),
     (356, \<lparr>lex_state = 49, external_lex_state = 0, reserved_word_set_id = 0\<rparr>),
     (357, \<lparr>lex_state = 49, external_lex_state = 0, reserved_word_set_id = 0\<rparr>),
     (358, \<lparr>lex_state = 49, external_lex_state = 0, reserved_word_set_id = 0\<rparr>),
     (359, \<lparr>lex_state = 49, external_lex_state = 0, reserved_word_set_id = 0\<rparr>),
     (360, \<lparr>lex_state = 12, external_lex_state = 0, reserved_word_set_id = 0\<rparr>),
     (361, \<lparr>lex_state = 44, external_lex_state = 2, reserved_word_set_id = 0\<rparr>),
     (362, \<lparr>lex_state = 12, external_lex_state = 0, reserved_word_set_id = 0\<rparr>),
     (363, \<lparr>lex_state = 43, external_lex_state = 2, reserved_word_set_id = 0\<rparr>),
     (364, \<lparr>lex_state = 12, external_lex_state = 2, reserved_word_set_id = 0\<rparr>),
     (365, \<lparr>lex_state = 44, external_lex_state = 2, reserved_word_set_id = 0\<rparr>),
     (366, \<lparr>lex_state = 12, external_lex_state = 2, reserved_word_set_id = 0\<rparr>),
     (367, \<lparr>lex_state = 43, external_lex_state = 0, reserved_word_set_id = 0\<rparr>),
     (368, \<lparr>lex_state = 12, external_lex_state = 2, reserved_word_set_id = 0\<rparr>),
     (369, \<lparr>lex_state = 12, external_lex_state = 2, reserved_word_set_id = 0\<rparr>),
     (370, \<lparr>lex_state = 49, external_lex_state = 0, reserved_word_set_id = 0\<rparr>),
     (371, \<lparr>lex_state = 43, external_lex_state = 0, reserved_word_set_id = 0\<rparr>),
     (372, \<lparr>lex_state = 43, external_lex_state = 0, reserved_word_set_id = 0\<rparr>),
     (373, \<lparr>lex_state = 49, external_lex_state = 0, reserved_word_set_id = 0\<rparr>),
     (374, \<lparr>lex_state = 35, external_lex_state = 2, reserved_word_set_id = 0\<rparr>),
     (375, \<lparr>lex_state = 43, external_lex_state = 0, reserved_word_set_id = 0\<rparr>),
     (376, \<lparr>lex_state = 49, external_lex_state = 0, reserved_word_set_id = 0\<rparr>),
     (377, \<lparr>lex_state = 35, external_lex_state = 2, reserved_word_set_id = 0\<rparr>),
     (378, \<lparr>lex_state = 12, external_lex_state = 2, reserved_word_set_id = 0\<rparr>),
     (379, \<lparr>lex_state = 43, external_lex_state = 0, reserved_word_set_id = 0\<rparr>),
     (380, \<lparr>lex_state = 12, external_lex_state = 0, reserved_word_set_id = 0\<rparr>),
     (381, \<lparr>lex_state = 44, external_lex_state = 2, reserved_word_set_id = 0\<rparr>),
     (382, \<lparr>lex_state = 44, external_lex_state = 2, reserved_word_set_id = 0\<rparr>),
     (383, \<lparr>lex_state = 12, external_lex_state = 0, reserved_word_set_id = 0\<rparr>),
     (384, \<lparr>lex_state = 43, external_lex_state = 2, reserved_word_set_id = 0\<rparr>),
     (385, \<lparr>lex_state = 49, external_lex_state = 0, reserved_word_set_id = 0\<rparr>),
     (386, \<lparr>lex_state = 44, external_lex_state = 2, reserved_word_set_id = 0\<rparr>),
     (387, \<lparr>lex_state = 44, external_lex_state = 2, reserved_word_set_id = 0\<rparr>),
     (388, \<lparr>lex_state = 44, external_lex_state = 2, reserved_word_set_id = 0\<rparr>),
     (389, \<lparr>lex_state = 43, external_lex_state = 0, reserved_word_set_id = 0\<rparr>),
     (390, \<lparr>lex_state = 49, external_lex_state = 0, reserved_word_set_id = 0\<rparr>),
     (391, \<lparr>lex_state = 43, external_lex_state = 2, reserved_word_set_id = 0\<rparr>),
     (392, \<lparr>lex_state = 44, external_lex_state = 2, reserved_word_set_id = 0\<rparr>),
     (393, \<lparr>lex_state = 49, external_lex_state = 0, reserved_word_set_id = 0\<rparr>),
     (394, \<lparr>lex_state = 43, external_lex_state = 0, reserved_word_set_id = 0\<rparr>),
     (395, \<lparr>lex_state = 49, external_lex_state = 0, reserved_word_set_id = 0\<rparr>),
     (396, \<lparr>lex_state = 49, external_lex_state = 0, reserved_word_set_id = 0\<rparr>),
     (397, \<lparr>lex_state = 53, external_lex_state = 2, reserved_word_set_id = 0\<rparr>),
     (398, \<lparr>lex_state = 35, external_lex_state = 2, reserved_word_set_id = 0\<rparr>),
     (399, \<lparr>lex_state = 35, external_lex_state = 2, reserved_word_set_id = 0\<rparr>)]"

definition tcl_lex_modes_4 :: "(nat \<times> TSLexerMode) list" where
  "tcl_lex_modes_4 =
    [(400, \<lparr>lex_state = 35, external_lex_state = 2, reserved_word_set_id = 0\<rparr>),
     (401, \<lparr>lex_state = 50, external_lex_state = 0, reserved_word_set_id = 0\<rparr>),
     (402, \<lparr>lex_state = 35, external_lex_state = 2, reserved_word_set_id = 0\<rparr>),
     (403, \<lparr>lex_state = 35, external_lex_state = 2, reserved_word_set_id = 0\<rparr>),
     (404, \<lparr>lex_state = 12, external_lex_state = 0, reserved_word_set_id = 0\<rparr>),
     (405, \<lparr>lex_state = 43, external_lex_state = 0, reserved_word_set_id = 0\<rparr>),
     (406, \<lparr>lex_state = 50, external_lex_state = 2, reserved_word_set_id = 0\<rparr>),
     (407, \<lparr>lex_state = 53, external_lex_state = 2, reserved_word_set_id = 0\<rparr>),
     (408, \<lparr>lex_state = 53, external_lex_state = 2, reserved_word_set_id = 0\<rparr>),
     (409, \<lparr>lex_state = 50, external_lex_state = 2, reserved_word_set_id = 0\<rparr>),
     (410, \<lparr>lex_state = 53, external_lex_state = 2, reserved_word_set_id = 0\<rparr>),
     (411, \<lparr>lex_state = 43, external_lex_state = 0, reserved_word_set_id = 0\<rparr>),
     (412, \<lparr>lex_state = 45, external_lex_state = 0, reserved_word_set_id = 0\<rparr>),
     (413, \<lparr>lex_state = 53, external_lex_state = 2, reserved_word_set_id = 0\<rparr>),
     (414, \<lparr>lex_state = 45, external_lex_state = 0, reserved_word_set_id = 0\<rparr>),
     (415, \<lparr>lex_state = 12, external_lex_state = 0, reserved_word_set_id = 0\<rparr>),
     (416, \<lparr>lex_state = 42, external_lex_state = 0, reserved_word_set_id = 0\<rparr>),
     (417, \<lparr>lex_state = 12, external_lex_state = 0, reserved_word_set_id = 0\<rparr>),
     (418, \<lparr>lex_state = 43, external_lex_state = 2, reserved_word_set_id = 0\<rparr>),
     (419, \<lparr>lex_state = 12, external_lex_state = 0, reserved_word_set_id = 0\<rparr>),
     (420, \<lparr>lex_state = 44, external_lex_state = 0, reserved_word_set_id = 0\<rparr>),
     (421, \<lparr>lex_state = 43, external_lex_state = 2, reserved_word_set_id = 0\<rparr>),
     (422, \<lparr>lex_state = 43, external_lex_state = 0, reserved_word_set_id = 0\<rparr>),
     (423, \<lparr>lex_state = 12, external_lex_state = 0, reserved_word_set_id = 0\<rparr>),
     (424, \<lparr>lex_state = 43, external_lex_state = 2, reserved_word_set_id = 0\<rparr>),
     (425, \<lparr>lex_state = 12, external_lex_state = 0, reserved_word_set_id = 0\<rparr>),
     (426, \<lparr>lex_state = 43, external_lex_state = 0, reserved_word_set_id = 0\<rparr>),
     (427, \<lparr>lex_state = 43, external_lex_state = 0, reserved_word_set_id = 0\<rparr>),
     (428, \<lparr>lex_state = 43, external_lex_state = 0, reserved_word_set_id = 0\<rparr>),
     (429, \<lparr>lex_state = 43, external_lex_state = 0, reserved_word_set_id = 0\<rparr>),
     (430, \<lparr>lex_state = 43, external_lex_state = 0, reserved_word_set_id = 0\<rparr>),
     (431, \<lparr>lex_state = 43, external_lex_state = 0, reserved_word_set_id = 0\<rparr>),
     (432, \<lparr>lex_state = 43, external_lex_state = 0, reserved_word_set_id = 0\<rparr>),
     (433, \<lparr>lex_state = 12, external_lex_state = 0, reserved_word_set_id = 0\<rparr>),
     (434, \<lparr>lex_state = 43, external_lex_state = 0, reserved_word_set_id = 0\<rparr>),
     (435, \<lparr>lex_state = 12, external_lex_state = 0, reserved_word_set_id = 0\<rparr>),
     (436, \<lparr>lex_state = 12, external_lex_state = 0, reserved_word_set_id = 0\<rparr>),
     (437, \<lparr>lex_state = 12, external_lex_state = 0, reserved_word_set_id = 0\<rparr>),
     (438, \<lparr>lex_state = 43, external_lex_state = 0, reserved_word_set_id = 0\<rparr>),
     (439, \<lparr>lex_state = 44, external_lex_state = 0, reserved_word_set_id = 0\<rparr>),
     (440, \<lparr>lex_state = 50, external_lex_state = 2, reserved_word_set_id = 0\<rparr>),
     (441, \<lparr>lex_state = 35, external_lex_state = 2, reserved_word_set_id = 0\<rparr>),
     (442, \<lparr>lex_state = 35, external_lex_state = 2, reserved_word_set_id = 0\<rparr>),
     (443, \<lparr>lex_state = 35, external_lex_state = 2, reserved_word_set_id = 0\<rparr>),
     (444, \<lparr>lex_state = 35, external_lex_state = 2, reserved_word_set_id = 0\<rparr>),
     (445, \<lparr>lex_state = 35, external_lex_state = 2, reserved_word_set_id = 0\<rparr>),
     (446, \<lparr>lex_state = 35, external_lex_state = 2, reserved_word_set_id = 0\<rparr>),
     (447, \<lparr>lex_state = 35, external_lex_state = 2, reserved_word_set_id = 0\<rparr>),
     (448, \<lparr>lex_state = 44, external_lex_state = 0, reserved_word_set_id = 0\<rparr>),
     (449, \<lparr>lex_state = 35, external_lex_state = 0, reserved_word_set_id = 0\<rparr>),
     (450, \<lparr>lex_state = 35, external_lex_state = 2, reserved_word_set_id = 0\<rparr>),
     (451, \<lparr>lex_state = 44, external_lex_state = 0, reserved_word_set_id = 0\<rparr>),
     (452, \<lparr>lex_state = 35, external_lex_state = 0, reserved_word_set_id = 0\<rparr>),
     (453, \<lparr>lex_state = 35, external_lex_state = 0, reserved_word_set_id = 0\<rparr>),
     (454, \<lparr>lex_state = 35, external_lex_state = 0, reserved_word_set_id = 0\<rparr>),
     (455, \<lparr>lex_state = 50, external_lex_state = 2, reserved_word_set_id = 0\<rparr>),
     (456, \<lparr>lex_state = 12, external_lex_state = 0, reserved_word_set_id = 0\<rparr>),
     (457, \<lparr>lex_state = 12, external_lex_state = 0, reserved_word_set_id = 0\<rparr>),
     (458, \<lparr>lex_state = 50, external_lex_state = 2, reserved_word_set_id = 0\<rparr>),
     (459, \<lparr>lex_state = 12, external_lex_state = 0, reserved_word_set_id = 0\<rparr>),
     (460, \<lparr>lex_state = 35, external_lex_state = 0, reserved_word_set_id = 0\<rparr>),
     (461, \<lparr>lex_state = 12, external_lex_state = 0, reserved_word_set_id = 0\<rparr>),
     (462, \<lparr>lex_state = 12, external_lex_state = 0, reserved_word_set_id = 0\<rparr>),
     (463, \<lparr>lex_state = 50, external_lex_state = 2, reserved_word_set_id = 0\<rparr>),
     (464, \<lparr>lex_state = 12, external_lex_state = 2, reserved_word_set_id = 0\<rparr>),
     (465, \<lparr>lex_state = 55, external_lex_state = 0, reserved_word_set_id = 0\<rparr>),
     (466, \<lparr>lex_state = 12, external_lex_state = 0, reserved_word_set_id = 0\<rparr>),
     (467, \<lparr>lex_state = 50, external_lex_state = 0, reserved_word_set_id = 0\<rparr>),
     (468, \<lparr>lex_state = 12, external_lex_state = 0, reserved_word_set_id = 0\<rparr>),
     (469, \<lparr>lex_state = 50, external_lex_state = 0, reserved_word_set_id = 0\<rparr>),
     (470, \<lparr>lex_state = 12, external_lex_state = 0, reserved_word_set_id = 0\<rparr>),
     (471, \<lparr>lex_state = 50, external_lex_state = 0, reserved_word_set_id = 0\<rparr>),
     (472, \<lparr>lex_state = 50, external_lex_state = 0, reserved_word_set_id = 0\<rparr>),
     (473, \<lparr>lex_state = 35, external_lex_state = 0, reserved_word_set_id = 0\<rparr>),
     (474, \<lparr>lex_state = 12, external_lex_state = 0, reserved_word_set_id = 0\<rparr>),
     (475, \<lparr>lex_state = 50, external_lex_state = 2, reserved_word_set_id = 0\<rparr>),
     (476, \<lparr>lex_state = 50, external_lex_state = 2, reserved_word_set_id = 0\<rparr>),
     (477, \<lparr>lex_state = 49, external_lex_state = 0, reserved_word_set_id = 0\<rparr>),
     (478, \<lparr>lex_state = 55, external_lex_state = 0, reserved_word_set_id = 0\<rparr>),
     (479, \<lparr>lex_state = 35, external_lex_state = 0, reserved_word_set_id = 0\<rparr>),
     (480, \<lparr>lex_state = 12, external_lex_state = 0, reserved_word_set_id = 0\<rparr>),
     (481, \<lparr>lex_state = 12, external_lex_state = 0, reserved_word_set_id = 0\<rparr>),
     (482, \<lparr>lex_state = 12, external_lex_state = 0, reserved_word_set_id = 0\<rparr>),
     (483, \<lparr>lex_state = 55, external_lex_state = 0, reserved_word_set_id = 0\<rparr>),
     (484, \<lparr>lex_state = 50, external_lex_state = 2, reserved_word_set_id = 0\<rparr>),
     (485, \<lparr>lex_state = 12, external_lex_state = 0, reserved_word_set_id = 0\<rparr>),
     (486, \<lparr>lex_state = 12, external_lex_state = 0, reserved_word_set_id = 0\<rparr>),
     (487, \<lparr>lex_state = 49, external_lex_state = 0, reserved_word_set_id = 0\<rparr>),
     (488, \<lparr>lex_state = 12, external_lex_state = 0, reserved_word_set_id = 0\<rparr>),
     (489, \<lparr>lex_state = 55, external_lex_state = 0, reserved_word_set_id = 0\<rparr>),
     (490, \<lparr>lex_state = 12, external_lex_state = 2, reserved_word_set_id = 0\<rparr>),
     (491, \<lparr>lex_state = 35, external_lex_state = 2, reserved_word_set_id = 0\<rparr>),
     (492, \<lparr>lex_state = 12, external_lex_state = 0, reserved_word_set_id = 0\<rparr>),
     (493, \<lparr>lex_state = 55, external_lex_state = 0, reserved_word_set_id = 0\<rparr>),
     (494, \<lparr>lex_state = 50, external_lex_state = 2, reserved_word_set_id = 0\<rparr>),
     (495, \<lparr>lex_state = 12, external_lex_state = 0, reserved_word_set_id = 0\<rparr>),
     (496, \<lparr>lex_state = 35, external_lex_state = 0, reserved_word_set_id = 0\<rparr>),
     (497, \<lparr>lex_state = 55, external_lex_state = 0, reserved_word_set_id = 0\<rparr>),
     (498, \<lparr>lex_state = 12, external_lex_state = 2, reserved_word_set_id = 0\<rparr>),
     (499, \<lparr>lex_state = 55, external_lex_state = 0, reserved_word_set_id = 0\<rparr>)]"

definition tcl_lex_modes_5 :: "(nat \<times> TSLexerMode) list" where
  "tcl_lex_modes_5 =
    [(500, \<lparr>lex_state = 55, external_lex_state = 0, reserved_word_set_id = 0\<rparr>),
     (501, \<lparr>lex_state = 55, external_lex_state = 0, reserved_word_set_id = 0\<rparr>),
     (502, \<lparr>lex_state = 55, external_lex_state = 0, reserved_word_set_id = 0\<rparr>),
     (503, \<lparr>lex_state = 55, external_lex_state = 0, reserved_word_set_id = 0\<rparr>),
     (504, \<lparr>lex_state = 49, external_lex_state = 0, reserved_word_set_id = 0\<rparr>),
     (505, \<lparr>lex_state = 12, external_lex_state = 0, reserved_word_set_id = 0\<rparr>),
     (506, \<lparr>lex_state = 49, external_lex_state = 0, reserved_word_set_id = 0\<rparr>),
     (507, \<lparr>lex_state = 53, external_lex_state = 2, reserved_word_set_id = 0\<rparr>),
     (508, \<lparr>lex_state = 12, external_lex_state = 0, reserved_word_set_id = 0\<rparr>),
     (509, \<lparr>lex_state = 12, external_lex_state = 0, reserved_word_set_id = 0\<rparr>),
     (510, \<lparr>lex_state = 50, external_lex_state = 0, reserved_word_set_id = 0\<rparr>),
     (511, \<lparr>lex_state = 12, external_lex_state = 0, reserved_word_set_id = 0\<rparr>),
     (512, \<lparr>lex_state = 12, external_lex_state = 0, reserved_word_set_id = 0\<rparr>),
     (513, \<lparr>lex_state = 35, external_lex_state = 0, reserved_word_set_id = 0\<rparr>),
     (514, \<lparr>lex_state = 0, external_lex_state = 2, reserved_word_set_id = 0\<rparr>),
     (515, \<lparr>lex_state = 50, external_lex_state = 2, reserved_word_set_id = 0\<rparr>),
     (516, \<lparr>lex_state = 12, external_lex_state = 2, reserved_word_set_id = 0\<rparr>),
     (517, \<lparr>lex_state = 0, external_lex_state = 2, reserved_word_set_id = 0\<rparr>),
     (518, \<lparr>lex_state = 0, external_lex_state = 2, reserved_word_set_id = 0\<rparr>),
     (519, \<lparr>lex_state = 12, external_lex_state = 2, reserved_word_set_id = 0\<rparr>),
     (520, \<lparr>lex_state = 52, external_lex_state = 0, reserved_word_set_id = 0\<rparr>),
     (521, \<lparr>lex_state = 50, external_lex_state = 2, reserved_word_set_id = 0\<rparr>),
     (522, \<lparr>lex_state = 50, external_lex_state = 0, reserved_word_set_id = 0\<rparr>),
     (523, \<lparr>lex_state = 50, external_lex_state = 2, reserved_word_set_id = 0\<rparr>),
     (524, \<lparr>lex_state = 35, external_lex_state = 0, reserved_word_set_id = 0\<rparr>),
     (525, \<lparr>lex_state = 50, external_lex_state = 0, reserved_word_set_id = 0\<rparr>),
     (526, \<lparr>lex_state = 50, external_lex_state = 0, reserved_word_set_id = 0\<rparr>),
     (527, \<lparr>lex_state = 50, external_lex_state = 0, reserved_word_set_id = 0\<rparr>),
     (528, \<lparr>lex_state = 35, external_lex_state = 0, reserved_word_set_id = 0\<rparr>),
     (529, \<lparr>lex_state = 50, external_lex_state = 2, reserved_word_set_id = 0\<rparr>),
     (530, \<lparr>lex_state = 50, external_lex_state = 2, reserved_word_set_id = 0\<rparr>),
     (531, \<lparr>lex_state = 50, external_lex_state = 2, reserved_word_set_id = 0\<rparr>),
     (532, \<lparr>lex_state = 52, external_lex_state = 0, reserved_word_set_id = 0\<rparr>),
     (533, \<lparr>lex_state = 50, external_lex_state = 2, reserved_word_set_id = 0\<rparr>),
     (534, \<lparr>lex_state = 12, external_lex_state = 2, reserved_word_set_id = 0\<rparr>),
     (535, \<lparr>lex_state = 12, external_lex_state = 0, reserved_word_set_id = 0\<rparr>),
     (536, \<lparr>lex_state = 12, external_lex_state = 0, reserved_word_set_id = 0\<rparr>),
     (537, \<lparr>lex_state = 12, external_lex_state = 0, reserved_word_set_id = 0\<rparr>),
     (538, \<lparr>lex_state = 12, external_lex_state = 0, reserved_word_set_id = 0\<rparr>),
     (539, \<lparr>lex_state = 12, external_lex_state = 0, reserved_word_set_id = 0\<rparr>),
     (540, \<lparr>lex_state = 12, external_lex_state = 0, reserved_word_set_id = 0\<rparr>),
     (541, \<lparr>lex_state = 35, external_lex_state = 0, reserved_word_set_id = 0\<rparr>),
     (542, \<lparr>lex_state = 35, external_lex_state = 0, reserved_word_set_id = 0\<rparr>),
     (543, \<lparr>lex_state = 35, external_lex_state = 0, reserved_word_set_id = 0\<rparr>),
     (544, \<lparr>lex_state = 12, external_lex_state = 0, reserved_word_set_id = 0\<rparr>),
     (545, \<lparr>lex_state = 12, external_lex_state = 0, reserved_word_set_id = 0\<rparr>),
     (546, \<lparr>lex_state = 12, external_lex_state = 0, reserved_word_set_id = 0\<rparr>),
     (547, \<lparr>lex_state = 12, external_lex_state = 0, reserved_word_set_id = 0\<rparr>),
     (548, \<lparr>lex_state = 12, external_lex_state = 0, reserved_word_set_id = 0\<rparr>),
     (549, \<lparr>lex_state = 12, external_lex_state = 0, reserved_word_set_id = 0\<rparr>),
     (550, \<lparr>lex_state = 12, external_lex_state = 0, reserved_word_set_id = 0\<rparr>),
     (551, \<lparr>lex_state = 12, external_lex_state = 0, reserved_word_set_id = 0\<rparr>),
     (552, \<lparr>lex_state = 35, external_lex_state = 0, reserved_word_set_id = 0\<rparr>),
     (553, \<lparr>lex_state = 12, external_lex_state = 0, reserved_word_set_id = 0\<rparr>),
     (554, \<lparr>lex_state = 12, external_lex_state = 0, reserved_word_set_id = 0\<rparr>),
     (555, \<lparr>lex_state = 50, external_lex_state = 0, reserved_word_set_id = 0\<rparr>),
     (556, \<lparr>lex_state = 12, external_lex_state = 0, reserved_word_set_id = 0\<rparr>),
     (557, \<lparr>lex_state = 50, external_lex_state = 0, reserved_word_set_id = 0\<rparr>),
     (558, \<lparr>lex_state = 12, external_lex_state = 0, reserved_word_set_id = 0\<rparr>),
     (559, \<lparr>lex_state = 50, external_lex_state = 0, reserved_word_set_id = 0\<rparr>),
     (560, \<lparr>lex_state = 12, external_lex_state = 0, reserved_word_set_id = 0\<rparr>),
     (561, \<lparr>lex_state = 12, external_lex_state = 0, reserved_word_set_id = 0\<rparr>),
     (562, \<lparr>lex_state = 12, external_lex_state = 0, reserved_word_set_id = 0\<rparr>),
     (563, \<lparr>lex_state = 12, external_lex_state = 0, reserved_word_set_id = 0\<rparr>),
     (564, \<lparr>lex_state = 12, external_lex_state = 0, reserved_word_set_id = 0\<rparr>),
     (565, \<lparr>lex_state = 12, external_lex_state = 0, reserved_word_set_id = 0\<rparr>),
     (566, \<lparr>lex_state = 0, external_lex_state = 2, reserved_word_set_id = 0\<rparr>),
     (567, \<lparr>lex_state = 12, external_lex_state = 0, reserved_word_set_id = 0\<rparr>),
     (568, \<lparr>lex_state = 50, external_lex_state = 0, reserved_word_set_id = 0\<rparr>),
     (569, \<lparr>lex_state = 12, external_lex_state = 0, reserved_word_set_id = 0\<rparr>),
     (570, \<lparr>lex_state = 35, external_lex_state = 0, reserved_word_set_id = 0\<rparr>),
     (571, \<lparr>lex_state = 12, external_lex_state = 0, reserved_word_set_id = 0\<rparr>),
     (572, \<lparr>lex_state = 50, external_lex_state = 0, reserved_word_set_id = 0\<rparr>),
     (573, \<lparr>lex_state = 12, external_lex_state = 0, reserved_word_set_id = 0\<rparr>),
     (574, \<lparr>lex_state = 50, external_lex_state = 0, reserved_word_set_id = 0\<rparr>),
     (575, \<lparr>lex_state = 12, external_lex_state = 0, reserved_word_set_id = 0\<rparr>),
     (576, \<lparr>lex_state = 50, external_lex_state = 0, reserved_word_set_id = 0\<rparr>),
     (577, \<lparr>lex_state = 50, external_lex_state = 0, reserved_word_set_id = 0\<rparr>),
     (578, \<lparr>lex_state = 12, external_lex_state = 0, reserved_word_set_id = 0\<rparr>),
     (579, \<lparr>lex_state = 12, external_lex_state = 0, reserved_word_set_id = 0\<rparr>),
     (580, \<lparr>lex_state = 50, external_lex_state = 0, reserved_word_set_id = 0\<rparr>),
     (581, \<lparr>lex_state = 12, external_lex_state = 0, reserved_word_set_id = 0\<rparr>),
     (582, \<lparr>lex_state = 12, external_lex_state = 0, reserved_word_set_id = 0\<rparr>),
     (583, \<lparr>lex_state = 12, external_lex_state = 0, reserved_word_set_id = 0\<rparr>),
     (584, \<lparr>lex_state = 0, external_lex_state = 2, reserved_word_set_id = 0\<rparr>),
     (585, \<lparr>lex_state = 12, external_lex_state = 0, reserved_word_set_id = 0\<rparr>),
     (586, \<lparr>lex_state = 12, external_lex_state = 0, reserved_word_set_id = 0\<rparr>),
     (587, \<lparr>lex_state = 12, external_lex_state = 0, reserved_word_set_id = 0\<rparr>),
     (588, \<lparr>lex_state = 12, external_lex_state = 0, reserved_word_set_id = 0\<rparr>),
     (589, \<lparr>lex_state = 12, external_lex_state = 0, reserved_word_set_id = 0\<rparr>),
     (590, \<lparr>lex_state = 12, external_lex_state = 0, reserved_word_set_id = 0\<rparr>),
     (591, \<lparr>lex_state = 0, external_lex_state = 2, reserved_word_set_id = 0\<rparr>),
     (592, \<lparr>lex_state = 50, external_lex_state = 0, reserved_word_set_id = 0\<rparr>),
     (593, \<lparr>lex_state = 50, external_lex_state = 0, reserved_word_set_id = 0\<rparr>),
     (594, \<lparr>lex_state = 35, external_lex_state = 0, reserved_word_set_id = 0\<rparr>),
     (595, \<lparr>lex_state = 0, external_lex_state = 2, reserved_word_set_id = 0\<rparr>),
     (596, \<lparr>lex_state = 50, external_lex_state = 0, reserved_word_set_id = 0\<rparr>),
     (597, \<lparr>lex_state = 0, external_lex_state = 2, reserved_word_set_id = 0\<rparr>),
     (598, \<lparr>lex_state = 0, external_lex_state = 2, reserved_word_set_id = 0\<rparr>),
     (599, \<lparr>lex_state = 0, external_lex_state = 2, reserved_word_set_id = 0\<rparr>)]"

definition tcl_lex_modes_6 :: "(nat \<times> TSLexerMode) list" where
  "tcl_lex_modes_6 =
    [(600, \<lparr>lex_state = 0, external_lex_state = 2, reserved_word_set_id = 0\<rparr>),
     (601, \<lparr>lex_state = 50, external_lex_state = 0, reserved_word_set_id = 0\<rparr>),
     (602, \<lparr>lex_state = 12, external_lex_state = 0, reserved_word_set_id = 0\<rparr>),
     (603, \<lparr>lex_state = 0, external_lex_state = 0, reserved_word_set_id = 0\<rparr>),
     (604, \<lparr>lex_state = 55, external_lex_state = 0, reserved_word_set_id = 0\<rparr>),
     (605, \<lparr>lex_state = 55, external_lex_state = 0, reserved_word_set_id = 0\<rparr>),
     (606, \<lparr>lex_state = 0, external_lex_state = 0, reserved_word_set_id = 0\<rparr>),
     (607, \<lparr>lex_state = 0, external_lex_state = 0, reserved_word_set_id = 0\<rparr>),
     (608, \<lparr>lex_state = 0, external_lex_state = 0, reserved_word_set_id = 0\<rparr>),
     (609, \<lparr>lex_state = 0, external_lex_state = 0, reserved_word_set_id = 0\<rparr>),
     (610, \<lparr>lex_state = 0, external_lex_state = 0, reserved_word_set_id = 0\<rparr>),
     (611, \<lparr>lex_state = 50, external_lex_state = 0, reserved_word_set_id = 0\<rparr>),
     (612, \<lparr>lex_state = 0, external_lex_state = 0, reserved_word_set_id = 0\<rparr>),
     (613, \<lparr>lex_state = 55, external_lex_state = 0, reserved_word_set_id = 0\<rparr>),
     (614, \<lparr>lex_state = 55, external_lex_state = 0, reserved_word_set_id = 0\<rparr>),
     (615, \<lparr>lex_state = 0, external_lex_state = 0, reserved_word_set_id = 0\<rparr>),
     (616, \<lparr>lex_state = 55, external_lex_state = 0, reserved_word_set_id = 0\<rparr>),
     (617, \<lparr>lex_state = 0, external_lex_state = 0, reserved_word_set_id = 0\<rparr>),
     (618, \<lparr>lex_state = 0, external_lex_state = 0, reserved_word_set_id = 0\<rparr>),
     (619, \<lparr>lex_state = 0, external_lex_state = 0, reserved_word_set_id = 0\<rparr>),
     (620, \<lparr>lex_state = 0, external_lex_state = 0, reserved_word_set_id = 0\<rparr>),
     (621, \<lparr>lex_state = 55, external_lex_state = 0, reserved_word_set_id = 0\<rparr>),
     (622, \<lparr>lex_state = 0, external_lex_state = 0, reserved_word_set_id = 0\<rparr>),
     (623, \<lparr>lex_state = 0, external_lex_state = 0, reserved_word_set_id = 0\<rparr>),
     (624, \<lparr>lex_state = 55, external_lex_state = 0, reserved_word_set_id = 0\<rparr>),
     (625, \<lparr>lex_state = 0, external_lex_state = 0, reserved_word_set_id = 0\<rparr>),
     (626, \<lparr>lex_state = 0, external_lex_state = 0, reserved_word_set_id = 0\<rparr>),
     (627, \<lparr>lex_state = 0, external_lex_state = 0, reserved_word_set_id = 0\<rparr>),
     (628, \<lparr>lex_state = 0, external_lex_state = 0, reserved_word_set_id = 0\<rparr>),
     (629, \<lparr>lex_state = 55, external_lex_state = 0, reserved_word_set_id = 0\<rparr>),
     (630, \<lparr>lex_state = 0, external_lex_state = 0, reserved_word_set_id = 0\<rparr>),
     (631, \<lparr>lex_state = 0, external_lex_state = 0, reserved_word_set_id = 0\<rparr>),
     (632, \<lparr>lex_state = 55, external_lex_state = 0, reserved_word_set_id = 0\<rparr>),
     (633, \<lparr>lex_state = 0, external_lex_state = 0, reserved_word_set_id = 0\<rparr>),
     (634, \<lparr>lex_state = 0, external_lex_state = 0, reserved_word_set_id = 0\<rparr>),
     (635, \<lparr>lex_state = 0, external_lex_state = 0, reserved_word_set_id = 0\<rparr>),
     (636, \<lparr>lex_state = 0, external_lex_state = 0, reserved_word_set_id = 0\<rparr>),
     (637, \<lparr>lex_state = 55, external_lex_state = 0, reserved_word_set_id = 0\<rparr>),
     (638, \<lparr>lex_state = 55, external_lex_state = 0, reserved_word_set_id = 0\<rparr>),
     (639, \<lparr>lex_state = 0, external_lex_state = 0, reserved_word_set_id = 0\<rparr>),
     (640, \<lparr>lex_state = 55, external_lex_state = 0, reserved_word_set_id = 0\<rparr>),
     (641, \<lparr>lex_state = 0, external_lex_state = 0, reserved_word_set_id = 0\<rparr>),
     (642, \<lparr>lex_state = 0, external_lex_state = 0, reserved_word_set_id = 0\<rparr>),
     (643, \<lparr>lex_state = 0, external_lex_state = 0, reserved_word_set_id = 0\<rparr>),
     (644, \<lparr>lex_state = 55, external_lex_state = 0, reserved_word_set_id = 0\<rparr>),
     (645, \<lparr>lex_state = 0, external_lex_state = 0, reserved_word_set_id = 0\<rparr>),
     (646, \<lparr>lex_state = 55, external_lex_state = 0, reserved_word_set_id = 0\<rparr>),
     (647, \<lparr>lex_state = 0, external_lex_state = 0, reserved_word_set_id = 0\<rparr>),
     (648, \<lparr>lex_state = 0, external_lex_state = 0, reserved_word_set_id = 0\<rparr>),
     (649, \<lparr>lex_state = 55, external_lex_state = 0, reserved_word_set_id = 0\<rparr>),
     (650, \<lparr>lex_state = 55, external_lex_state = 0, reserved_word_set_id = 0\<rparr>),
     (651, \<lparr>lex_state = 0, external_lex_state = 0, reserved_word_set_id = 0\<rparr>),
     (652, \<lparr>lex_state = 55, external_lex_state = 0, reserved_word_set_id = 0\<rparr>),
     (653, \<lparr>lex_state = 0, external_lex_state = 0, reserved_word_set_id = 0\<rparr>),
     (654, \<lparr>lex_state = 0, external_lex_state = 0, reserved_word_set_id = 0\<rparr>),
     (655, \<lparr>lex_state = 0, external_lex_state = 0, reserved_word_set_id = 0\<rparr>),
     (656, \<lparr>lex_state = 0, external_lex_state = 0, reserved_word_set_id = 0\<rparr>),
     (657, \<lparr>lex_state = 0, external_lex_state = 0, reserved_word_set_id = 0\<rparr>),
     (658, \<lparr>lex_state = 55, external_lex_state = 0, reserved_word_set_id = 0\<rparr>),
     (659, \<lparr>lex_state = 50, external_lex_state = 0, reserved_word_set_id = 0\<rparr>),
     (660, \<lparr>lex_state = 59, external_lex_state = 0, reserved_word_set_id = 0\<rparr>),
     (661, \<lparr>lex_state = 0, external_lex_state = 0, reserved_word_set_id = 0\<rparr>),
     (662, \<lparr>lex_state = 0, external_lex_state = 0, reserved_word_set_id = 0\<rparr>),
     (663, \<lparr>lex_state = 0, external_lex_state = 0, reserved_word_set_id = 0\<rparr>),
     (664, \<lparr>lex_state = 50, external_lex_state = 0, reserved_word_set_id = 0\<rparr>),
     (665, \<lparr>lex_state = 46, external_lex_state = 0, reserved_word_set_id = 0\<rparr>),
     (666, \<lparr>lex_state = 59, external_lex_state = 0, reserved_word_set_id = 0\<rparr>),
     (667, \<lparr>lex_state = 0, external_lex_state = 0, reserved_word_set_id = 0\<rparr>),
     (668, \<lparr>lex_state = 0, external_lex_state = 0, reserved_word_set_id = 0\<rparr>),
     (669, \<lparr>lex_state = 0, external_lex_state = 0, reserved_word_set_id = 0\<rparr>),
     (670, \<lparr>lex_state = 0, external_lex_state = 0, reserved_word_set_id = 0\<rparr>),
     (671, \<lparr>lex_state = 0, external_lex_state = 0, reserved_word_set_id = 0\<rparr>),
     (672, \<lparr>lex_state = 0, external_lex_state = 0, reserved_word_set_id = 0\<rparr>),
     (673, \<lparr>lex_state = 55, external_lex_state = 0, reserved_word_set_id = 0\<rparr>),
     (674, \<lparr>lex_state = 55, external_lex_state = 0, reserved_word_set_id = 0\<rparr>),
     (675, \<lparr>lex_state = 59, external_lex_state = 0, reserved_word_set_id = 0\<rparr>),
     (676, \<lparr>lex_state = 55, external_lex_state = 0, reserved_word_set_id = 0\<rparr>),
     (677, \<lparr>lex_state = 59, external_lex_state = 0, reserved_word_set_id = 0\<rparr>),
     (678, \<lparr>lex_state = 0, external_lex_state = 0, reserved_word_set_id = 0\<rparr>),
     (679, \<lparr>lex_state = 59, external_lex_state = 0, reserved_word_set_id = 0\<rparr>),
     (680, \<lparr>lex_state = 0, external_lex_state = 0, reserved_word_set_id = 0\<rparr>),
     (681, \<lparr>lex_state = 0, external_lex_state = 0, reserved_word_set_id = 0\<rparr>),
     (682, \<lparr>lex_state = 59, external_lex_state = 0, reserved_word_set_id = 0\<rparr>),
     (683, \<lparr>lex_state = 0, external_lex_state = 0, reserved_word_set_id = 0\<rparr>),
     (684, \<lparr>lex_state = 0, external_lex_state = 0, reserved_word_set_id = 0\<rparr>),
     (685, \<lparr>lex_state = 59, external_lex_state = 0, reserved_word_set_id = 0\<rparr>),
     (686, \<lparr>lex_state = 0, external_lex_state = 0, reserved_word_set_id = 0\<rparr>),
     (687, \<lparr>lex_state = 55, external_lex_state = 0, reserved_word_set_id = 0\<rparr>),
     (688, \<lparr>lex_state = 59, external_lex_state = 0, reserved_word_set_id = 0\<rparr>),
     (689, \<lparr>lex_state = 0, external_lex_state = 0, reserved_word_set_id = 0\<rparr>),
     (690, \<lparr>lex_state = 0, external_lex_state = 0, reserved_word_set_id = 0\<rparr>),
     (691, \<lparr>lex_state = 59, external_lex_state = 0, reserved_word_set_id = 0\<rparr>),
     (692, \<lparr>lex_state = 0, external_lex_state = 0, reserved_word_set_id = 0\<rparr>),
     (693, \<lparr>lex_state = 0, external_lex_state = 0, reserved_word_set_id = 0\<rparr>),
     (694, \<lparr>lex_state = 59, external_lex_state = 0, reserved_word_set_id = 0\<rparr>),
     (695, \<lparr>lex_state = 0, external_lex_state = 0, reserved_word_set_id = 0\<rparr>),
     (696, \<lparr>lex_state = 59, external_lex_state = 0, reserved_word_set_id = 0\<rparr>),
     (697, \<lparr>lex_state = 59, external_lex_state = 0, reserved_word_set_id = 0\<rparr>),
     (698, \<lparr>lex_state = 0, external_lex_state = 0, reserved_word_set_id = 0\<rparr>),
     (699, \<lparr>lex_state = 0, external_lex_state = 0, reserved_word_set_id = 0\<rparr>)]"

definition tcl_lex_modes_7 :: "(nat \<times> TSLexerMode) list" where
  "tcl_lex_modes_7 =
    [(700, \<lparr>lex_state = 0, external_lex_state = 0, reserved_word_set_id = 0\<rparr>),
     (701, \<lparr>lex_state = 0, external_lex_state = 0, reserved_word_set_id = 0\<rparr>),
     (702, \<lparr>lex_state = 55, external_lex_state = 0, reserved_word_set_id = 0\<rparr>),
     (703, \<lparr>lex_state = 0, external_lex_state = 0, reserved_word_set_id = 0\<rparr>),
     (704, \<lparr>lex_state = 46, external_lex_state = 0, reserved_word_set_id = 0\<rparr>),
     (705, \<lparr>lex_state = 35, external_lex_state = 0, reserved_word_set_id = 0\<rparr>),
     (706, \<lparr>lex_state = 0, external_lex_state = 0, reserved_word_set_id = 0\<rparr>),
     (707, \<lparr>lex_state = 50, external_lex_state = 0, reserved_word_set_id = 0\<rparr>),
     (708, \<lparr>lex_state = 50, external_lex_state = 0, reserved_word_set_id = 0\<rparr>),
     (709, \<lparr>lex_state = 0, external_lex_state = 0, reserved_word_set_id = 0\<rparr>),
     (710, \<lparr>lex_state = 0, external_lex_state = 0, reserved_word_set_id = 0\<rparr>),
     (711, \<lparr>lex_state = 55, external_lex_state = 0, reserved_word_set_id = 0\<rparr>),
     (712, \<lparr>lex_state = 0, external_lex_state = 0, reserved_word_set_id = 0\<rparr>),
     (713, \<lparr>lex_state = 0, external_lex_state = 0, reserved_word_set_id = 0\<rparr>),
     (714, \<lparr>lex_state = 35, external_lex_state = 0, reserved_word_set_id = 0\<rparr>),
     (715, \<lparr>lex_state = 46, external_lex_state = 0, reserved_word_set_id = 0\<rparr>),
     (716, \<lparr>lex_state = 0, external_lex_state = 0, reserved_word_set_id = 0\<rparr>)]"

definition tcl_ts_lex_modes :: "(nat \<times> TSLexerMode) list" where
  "tcl_ts_lex_modes = tcl_lex_modes_0 @ tcl_lex_modes_1 @ tcl_lex_modes_2 @ tcl_lex_modes_3 @
    tcl_lex_modes_4 @ tcl_lex_modes_5 @ tcl_lex_modes_6 @ tcl_lex_modes_7"

section \<open>The parse table\<close>

text \<open>One definition per row of the large states, as (symbol, value) pairs.\<close>

definition tcl_parse_row_0 :: "(TSSymbol \<times> nat) list" where
  "tcl_parse_row_0 =
    [(ts_builtin_sym_end, 1), (tcl_sym_simple_word, 1),
     (tcl_anon_sym_SEMI, 1), (tcl_sym_comment, 1),
     (tcl_anon_sym_regexp, 1), (tcl_anon_sym_while, 1),
     (tcl_anon_sym_expr, 1), (tcl_anon_sym_foreach, 1),
     (tcl_anon_sym_global, 1), (tcl_anon_sym_namespace, 1),
     (tcl_anon_sym_try, 1), (tcl_anon_sym_on, 1),
     (tcl_anon_sym_error, 1), (tcl_anon_sym_finally, 1),
     (tcl_sym_unpack, 1), (tcl_anon_sym_COLON_COLON, 1),
     (tcl_anon_sym_LPAREN, 1), (tcl_anon_sym_RPAREN, 1),
     (tcl_anon_sym_DOLLAR, 1), (tcl_anon_sym_LBRACE, 1),
     (tcl_anon_sym_RBRACE, 1), (tcl_anon_sym_set, 1),
     (tcl_anon_sym_proc, 1), (tcl_sym_number, 1),
     (tcl_sym__boolean, 1), (tcl_anon_sym_LPAREN2, 1),
     (tcl_anon_sym_DASH, 1), (tcl_anon_sym_PLUS, 1),
     (tcl_anon_sym_TILDE, 1), (tcl_anon_sym_BANG, 1),
     (tcl_anon_sym_STAR_STAR, 1), (tcl_anon_sym_SLASH, 1),
     (tcl_anon_sym_STAR, 1), (tcl_anon_sym_PERCENT, 1),
     (tcl_anon_sym_LT_LT, 1), (tcl_anon_sym_GT_GT, 1),
     (tcl_anon_sym_GT, 1), (tcl_anon_sym_LT, 1),
     (tcl_anon_sym_GT_EQ, 1), (tcl_anon_sym_LT_EQ, 1),
     (tcl_anon_sym_EQ_EQ, 1), (tcl_anon_sym_eq, 1),
     (tcl_anon_sym_ne, 1), (tcl_anon_sym_in, 1),
     (tcl_anon_sym_ni, 1), (tcl_anon_sym_AMP, 1),
     (tcl_anon_sym_CARET, 1), (tcl_anon_sym_PIPE, 1),
     (tcl_anon_sym_AMP_AMP, 1), (tcl_anon_sym_PIPE_PIPE, 1),
     (tcl_anon_sym_QMARK, 1), (tcl_anon_sym_COLON, 1),
     (tcl_anon_sym_elseif, 1), (tcl_anon_sym_else, 1),
     (tcl_anon_sym_if, 1), (tcl_anon_sym_catch, 1),
     (tcl_anon_sym_DQUOTE, 1), (tcl_anon_sym_LBRACK, 1),
     (tcl_anon_sym_RBRACK, 1), (tcl_sym__concat, 1),
     (tcl_sym__immediate, 1)]"

definition tcl_parse_row_1 :: "(TSSymbol \<times> nat) list" where
  "tcl_parse_row_1 =
    [(tcl_sym_source_file, 670), (tcl_sym_regexp, 602),
     (tcl_sym_while, 602), (tcl_sym_expr_cmd, 602),
     (tcl_sym_foreach, 602), (tcl_sym_global, 602),
     (tcl_sym_namespace, 602), (tcl_sym_try, 602),
     (tcl_sym__command, 602), (tcl_sym_command, 602),
     (tcl_sym__concat_word, 97), (tcl_sym_variable_substitution, 198),
     (tcl_sym_braced_word, 97), (tcl_sym_set, 602),
     (tcl_sym_procedure, 602), (tcl_sym_elseif, 602),
     (tcl_sym_else, 602), (tcl_sym_if, 602),
     (tcl_sym__conditional, 602), (tcl_sym_catch, 602),
     (tcl_sym_quoted_word, 198), (tcl_sym_command_substitution, 198),
     (tcl_aux_sym_source_file_repeat1, 5), (ts_builtin_sym_end, 3),
     (tcl_sym_simple_word, 5), (tcl_anon_sym_LF, 7),
     (tcl_anon_sym_SEMI, 7), (tcl_sym_comment, 9),
     (tcl_anon_sym_regexp, 11), (tcl_anon_sym_while, 13),
     (tcl_anon_sym_expr, 15), (tcl_anon_sym_foreach, 17),
     (tcl_anon_sym_global, 19), (tcl_anon_sym_namespace, 21),
     (tcl_anon_sym_try, 23), (tcl_sym_unpack, 25),
     (tcl_anon_sym_DOLLAR, 27), (tcl_anon_sym_LBRACE, 29),
     (tcl_anon_sym_set, 31), (tcl_anon_sym_proc, 33),
     (tcl_anon_sym_elseif, 35), (tcl_anon_sym_else, 37),
     (tcl_anon_sym_if, 39), (tcl_anon_sym_catch, 41),
     (tcl_anon_sym_DQUOTE, 43), (tcl_sym_escaped_character, 45),
     (tcl_anon_sym_LBRACK, 47)]"

definition tcl_ts_parse_table :: "(nat \<times> (TSSymbol \<times> nat) list) list" where
  "tcl_ts_parse_table =
    [(0, tcl_parse_row_0), (1, tcl_parse_row_1)]"

section \<open>The small parse table\<close>

text \<open>One definition per designated run.\<close>

definition tcl_small_run_0 :: "nat list" where
  "tcl_small_run_0 =
    [27, 49, 1, ts_builtin_sym_end, 51, 1, tcl_sym_simple_word, 57, 1, tcl_sym_comment, 60, 1,
      tcl_anon_sym_regexp, 63, 1, tcl_anon_sym_while, 66, 1, tcl_anon_sym_expr, 69, 1,
      tcl_anon_sym_foreach, 72, 1, tcl_anon_sym_global, 75, 1, tcl_anon_sym_namespace, 78, 1,
      tcl_anon_sym_try, 81, 1, tcl_sym_unpack, 84, 1, tcl_anon_sym_DOLLAR, 87, 1,
      tcl_anon_sym_LBRACE, 90, 1, tcl_anon_sym_set, 93, 1, tcl_anon_sym_proc, 96, 1,
      tcl_anon_sym_elseif, 99, 1, tcl_anon_sym_else, 102, 1, tcl_anon_sym_if, 105, 1,
      tcl_anon_sym_catch, 108, 1, tcl_anon_sym_DQUOTE, 111, 1, tcl_sym_escaped_character, 114, 1,
      tcl_anon_sym_LBRACK, 2, 1, tcl_aux_sym_source_file_repeat1, 54, 2, tcl_anon_sym_LF,
      tcl_anon_sym_SEMI, 97, 2, tcl_sym__concat_word, tcl_sym_braced_word, 198, 3,
      tcl_sym_variable_substitution, tcl_sym_quoted_word, tcl_sym_command_substitution, 602, 16,
      tcl_sym_regexp, tcl_sym_while, tcl_sym_expr_cmd, tcl_sym_foreach, tcl_sym_global,
      tcl_sym_namespace, tcl_sym_try, tcl_sym__command, tcl_sym_command, tcl_sym_set,
      tcl_sym_procedure, tcl_sym_elseif, tcl_sym_else, tcl_sym_if, tcl_sym__conditional,
      tcl_sym_catch]"

definition tcl_small_run_101 :: "nat list" where
  "tcl_small_run_101 =
    [27, 5, 1, tcl_sym_simple_word, 11, 1, tcl_anon_sym_regexp, 13, 1, tcl_anon_sym_while, 15, 1,
      tcl_anon_sym_expr, 17, 1, tcl_anon_sym_foreach, 19, 1, tcl_anon_sym_global, 21, 1,
      tcl_anon_sym_namespace, 23, 1, tcl_anon_sym_try, 25, 1, tcl_sym_unpack, 27, 1,
      tcl_anon_sym_DOLLAR, 29, 1, tcl_anon_sym_LBRACE, 31, 1, tcl_anon_sym_set, 33, 1,
      tcl_anon_sym_proc, 35, 1, tcl_anon_sym_elseif, 37, 1, tcl_anon_sym_else, 39, 1,
      tcl_anon_sym_if, 41, 1, tcl_anon_sym_catch, 43, 1, tcl_anon_sym_DQUOTE, 45, 1,
      tcl_sym_escaped_character, 47, 1, tcl_anon_sym_LBRACK, 119, 1, tcl_sym_comment, 121, 1,
      tcl_anon_sym_RBRACE, 70, 1, tcl_aux_sym_braced_word_repeat1, 117, 2, tcl_anon_sym_LF,
      tcl_anon_sym_SEMI, 97, 2, tcl_sym__concat_word, tcl_sym_braced_word, 198, 3,
      tcl_sym_variable_substitution, tcl_sym_quoted_word, tcl_sym_command_substitution, 565, 16,
      tcl_sym_regexp, tcl_sym_while, tcl_sym_expr_cmd, tcl_sym_foreach, tcl_sym_global,
      tcl_sym_namespace, tcl_sym_try, tcl_sym__command, tcl_sym_command, tcl_sym_set,
      tcl_sym_procedure, tcl_sym_elseif, tcl_sym_else, tcl_sym_if, tcl_sym__conditional,
      tcl_sym_catch]"

definition tcl_small_run_202 :: "nat list" where
  "tcl_small_run_202 =
    [27, 5, 1, tcl_sym_simple_word, 11, 1, tcl_anon_sym_regexp, 13, 1, tcl_anon_sym_while, 15, 1,
      tcl_anon_sym_expr, 17, 1, tcl_anon_sym_foreach, 19, 1, tcl_anon_sym_global, 21, 1,
      tcl_anon_sym_namespace, 23, 1, tcl_anon_sym_try, 25, 1, tcl_sym_unpack, 27, 1,
      tcl_anon_sym_DOLLAR, 29, 1, tcl_anon_sym_LBRACE, 31, 1, tcl_anon_sym_set, 33, 1,
      tcl_anon_sym_proc, 35, 1, tcl_anon_sym_elseif, 37, 1, tcl_anon_sym_else, 39, 1,
      tcl_anon_sym_if, 41, 1, tcl_anon_sym_catch, 43, 1, tcl_anon_sym_DQUOTE, 45, 1,
      tcl_sym_escaped_character, 47, 1, tcl_anon_sym_LBRACK, 119, 1, tcl_sym_comment, 123, 1,
      tcl_anon_sym_RBRACE, 70, 1, tcl_aux_sym_braced_word_repeat1, 117, 2, tcl_anon_sym_LF,
      tcl_anon_sym_SEMI, 97, 2, tcl_sym__concat_word, tcl_sym_braced_word, 198, 3,
      tcl_sym_variable_substitution, tcl_sym_quoted_word, tcl_sym_command_substitution, 565, 16,
      tcl_sym_regexp, tcl_sym_while, tcl_sym_expr_cmd, tcl_sym_foreach, tcl_sym_global,
      tcl_sym_namespace, tcl_sym_try, tcl_sym__command, tcl_sym_command, tcl_sym_set,
      tcl_sym_procedure, tcl_sym_elseif, tcl_sym_else, tcl_sym_if, tcl_sym__conditional,
      tcl_sym_catch]"

definition tcl_small_run_303 :: "nat list" where
  "tcl_small_run_303 =
    [27, 5, 1, tcl_sym_simple_word, 9, 1, tcl_sym_comment, 11, 1, tcl_anon_sym_regexp, 13, 1,
      tcl_anon_sym_while, 15, 1, tcl_anon_sym_expr, 17, 1, tcl_anon_sym_foreach, 19, 1,
      tcl_anon_sym_global, 21, 1, tcl_anon_sym_namespace, 23, 1, tcl_anon_sym_try, 25, 1,
      tcl_sym_unpack, 27, 1, tcl_anon_sym_DOLLAR, 29, 1, tcl_anon_sym_LBRACE, 31, 1,
      tcl_anon_sym_set, 33, 1, tcl_anon_sym_proc, 35, 1, tcl_anon_sym_elseif, 37, 1,
      tcl_anon_sym_else, 39, 1, tcl_anon_sym_if, 41, 1, tcl_anon_sym_catch, 43, 1,
      tcl_anon_sym_DQUOTE, 45, 1, tcl_sym_escaped_character, 47, 1, tcl_anon_sym_LBRACK, 125, 1,
      ts_builtin_sym_end, 2, 1, tcl_aux_sym_source_file_repeat1, 127, 2, tcl_anon_sym_LF,
      tcl_anon_sym_SEMI, 97, 2, tcl_sym__concat_word, tcl_sym_braced_word, 198, 3,
      tcl_sym_variable_substitution, tcl_sym_quoted_word, tcl_sym_command_substitution, 602, 16,
      tcl_sym_regexp, tcl_sym_while, tcl_sym_expr_cmd, tcl_sym_foreach, tcl_sym_global,
      tcl_sym_namespace, tcl_sym_try, tcl_sym__command, tcl_sym_command, tcl_sym_set,
      tcl_sym_procedure, tcl_sym_elseif, tcl_sym_else, tcl_sym_if, tcl_sym__conditional,
      tcl_sym_catch]"

definition tcl_small_run_404 :: "nat list" where
  "tcl_small_run_404 =
    [27, 5, 1, tcl_sym_simple_word, 11, 1, tcl_anon_sym_regexp, 13, 1, tcl_anon_sym_while, 15, 1,
      tcl_anon_sym_expr, 17, 1, tcl_anon_sym_foreach, 19, 1, tcl_anon_sym_global, 21, 1,
      tcl_anon_sym_namespace, 23, 1, tcl_anon_sym_try, 25, 1, tcl_sym_unpack, 27, 1,
      tcl_anon_sym_DOLLAR, 29, 1, tcl_anon_sym_LBRACE, 31, 1, tcl_anon_sym_set, 33, 1,
      tcl_anon_sym_proc, 35, 1, tcl_anon_sym_elseif, 37, 1, tcl_anon_sym_else, 39, 1,
      tcl_anon_sym_if, 41, 1, tcl_anon_sym_catch, 43, 1, tcl_anon_sym_DQUOTE, 45, 1,
      tcl_sym_escaped_character, 47, 1, tcl_anon_sym_LBRACK, 119, 1, tcl_sym_comment, 129, 1,
      tcl_anon_sym_RBRACE, 70, 1, tcl_aux_sym_braced_word_repeat1, 117, 2, tcl_anon_sym_LF,
      tcl_anon_sym_SEMI, 97, 2, tcl_sym__concat_word, tcl_sym_braced_word, 198, 3,
      tcl_sym_variable_substitution, tcl_sym_quoted_word, tcl_sym_command_substitution, 565, 16,
      tcl_sym_regexp, tcl_sym_while, tcl_sym_expr_cmd, tcl_sym_foreach, tcl_sym_global,
      tcl_sym_namespace, tcl_sym_try, tcl_sym__command, tcl_sym_command, tcl_sym_set,
      tcl_sym_procedure, tcl_sym_elseif, tcl_sym_else, tcl_sym_if, tcl_sym__conditional,
      tcl_sym_catch]"

definition tcl_small_run_505 :: "nat list" where
  "tcl_small_run_505 =
    [27, 5, 1, tcl_sym_simple_word, 11, 1, tcl_anon_sym_regexp, 13, 1, tcl_anon_sym_while, 15, 1,
      tcl_anon_sym_expr, 17, 1, tcl_anon_sym_foreach, 19, 1, tcl_anon_sym_global, 21, 1,
      tcl_anon_sym_namespace, 23, 1, tcl_anon_sym_try, 25, 1, tcl_sym_unpack, 27, 1,
      tcl_anon_sym_DOLLAR, 29, 1, tcl_anon_sym_LBRACE, 31, 1, tcl_anon_sym_set, 33, 1,
      tcl_anon_sym_proc, 35, 1, tcl_anon_sym_elseif, 37, 1, tcl_anon_sym_else, 39, 1,
      tcl_anon_sym_if, 41, 1, tcl_anon_sym_catch, 43, 1, tcl_anon_sym_DQUOTE, 45, 1,
      tcl_sym_escaped_character, 47, 1, tcl_anon_sym_LBRACK, 119, 1, tcl_sym_comment, 131, 1,
      tcl_anon_sym_RBRACE, 70, 1, tcl_aux_sym_braced_word_repeat1, 117, 2, tcl_anon_sym_LF,
      tcl_anon_sym_SEMI, 97, 2, tcl_sym__concat_word, tcl_sym_braced_word, 198, 3,
      tcl_sym_variable_substitution, tcl_sym_quoted_word, tcl_sym_command_substitution, 565, 16,
      tcl_sym_regexp, tcl_sym_while, tcl_sym_expr_cmd, tcl_sym_foreach, tcl_sym_global,
      tcl_sym_namespace, tcl_sym_try, tcl_sym__command, tcl_sym_command, tcl_sym_set,
      tcl_sym_procedure, tcl_sym_elseif, tcl_sym_else, tcl_sym_if, tcl_sym__conditional,
      tcl_sym_catch]"

definition tcl_small_run_606 :: "nat list" where
  "tcl_small_run_606 =
    [27, 5, 1, tcl_sym_simple_word, 11, 1, tcl_anon_sym_regexp, 13, 1, tcl_anon_sym_while, 15, 1,
      tcl_anon_sym_expr, 17, 1, tcl_anon_sym_foreach, 19, 1, tcl_anon_sym_global, 21, 1,
      tcl_anon_sym_namespace, 23, 1, tcl_anon_sym_try, 25, 1, tcl_sym_unpack, 27, 1,
      tcl_anon_sym_DOLLAR, 29, 1, tcl_anon_sym_LBRACE, 31, 1, tcl_anon_sym_set, 33, 1,
      tcl_anon_sym_proc, 35, 1, tcl_anon_sym_elseif, 37, 1, tcl_anon_sym_else, 39, 1,
      tcl_anon_sym_if, 41, 1, tcl_anon_sym_catch, 43, 1, tcl_anon_sym_DQUOTE, 45, 1,
      tcl_sym_escaped_character, 47, 1, tcl_anon_sym_LBRACK, 119, 1, tcl_sym_comment, 133, 1,
      tcl_anon_sym_RBRACE, 70, 1, tcl_aux_sym_braced_word_repeat1, 117, 2, tcl_anon_sym_LF,
      tcl_anon_sym_SEMI, 97, 2, tcl_sym__concat_word, tcl_sym_braced_word, 198, 3,
      tcl_sym_variable_substitution, tcl_sym_quoted_word, tcl_sym_command_substitution, 565, 16,
      tcl_sym_regexp, tcl_sym_while, tcl_sym_expr_cmd, tcl_sym_foreach, tcl_sym_global,
      tcl_sym_namespace, tcl_sym_try, tcl_sym__command, tcl_sym_command, tcl_sym_set,
      tcl_sym_procedure, tcl_sym_elseif, tcl_sym_else, tcl_sym_if, tcl_sym__conditional,
      tcl_sym_catch]"

definition tcl_small_run_707 :: "nat list" where
  "tcl_small_run_707 =
    [27, 5, 1, tcl_sym_simple_word, 11, 1, tcl_anon_sym_regexp, 13, 1, tcl_anon_sym_while, 15, 1,
      tcl_anon_sym_expr, 17, 1, tcl_anon_sym_foreach, 19, 1, tcl_anon_sym_global, 21, 1,
      tcl_anon_sym_namespace, 23, 1, tcl_anon_sym_try, 25, 1, tcl_sym_unpack, 27, 1,
      tcl_anon_sym_DOLLAR, 29, 1, tcl_anon_sym_LBRACE, 31, 1, tcl_anon_sym_set, 33, 1,
      tcl_anon_sym_proc, 35, 1, tcl_anon_sym_elseif, 37, 1, tcl_anon_sym_else, 39, 1,
      tcl_anon_sym_if, 41, 1, tcl_anon_sym_catch, 43, 1, tcl_anon_sym_DQUOTE, 45, 1,
      tcl_sym_escaped_character, 47, 1, tcl_anon_sym_LBRACK, 119, 1, tcl_sym_comment, 135, 1,
      tcl_anon_sym_RBRACE, 70, 1, tcl_aux_sym_braced_word_repeat1, 117, 2, tcl_anon_sym_LF,
      tcl_anon_sym_SEMI, 97, 2, tcl_sym__concat_word, tcl_sym_braced_word, 198, 3,
      tcl_sym_variable_substitution, tcl_sym_quoted_word, tcl_sym_command_substitution, 565, 16,
      tcl_sym_regexp, tcl_sym_while, tcl_sym_expr_cmd, tcl_sym_foreach, tcl_sym_global,
      tcl_sym_namespace, tcl_sym_try, tcl_sym__command, tcl_sym_command, tcl_sym_set,
      tcl_sym_procedure, tcl_sym_elseif, tcl_sym_else, tcl_sym_if, tcl_sym__conditional,
      tcl_sym_catch]"

definition tcl_small_run_808 :: "nat list" where
  "tcl_small_run_808 =
    [27, 5, 1, tcl_sym_simple_word, 11, 1, tcl_anon_sym_regexp, 13, 1, tcl_anon_sym_while, 15, 1,
      tcl_anon_sym_expr, 17, 1, tcl_anon_sym_foreach, 19, 1, tcl_anon_sym_global, 21, 1,
      tcl_anon_sym_namespace, 23, 1, tcl_anon_sym_try, 25, 1, tcl_sym_unpack, 27, 1,
      tcl_anon_sym_DOLLAR, 29, 1, tcl_anon_sym_LBRACE, 31, 1, tcl_anon_sym_set, 33, 1,
      tcl_anon_sym_proc, 35, 1, tcl_anon_sym_elseif, 37, 1, tcl_anon_sym_else, 39, 1,
      tcl_anon_sym_if, 41, 1, tcl_anon_sym_catch, 43, 1, tcl_anon_sym_DQUOTE, 45, 1,
      tcl_sym_escaped_character, 47, 1, tcl_anon_sym_LBRACK, 119, 1, tcl_sym_comment, 137, 1,
      tcl_anon_sym_RBRACE, 70, 1, tcl_aux_sym_braced_word_repeat1, 117, 2, tcl_anon_sym_LF,
      tcl_anon_sym_SEMI, 97, 2, tcl_sym__concat_word, tcl_sym_braced_word, 198, 3,
      tcl_sym_variable_substitution, tcl_sym_quoted_word, tcl_sym_command_substitution, 565, 16,
      tcl_sym_regexp, tcl_sym_while, tcl_sym_expr_cmd, tcl_sym_foreach, tcl_sym_global,
      tcl_sym_namespace, tcl_sym_try, tcl_sym__command, tcl_sym_command, tcl_sym_set,
      tcl_sym_procedure, tcl_sym_elseif, tcl_sym_else, tcl_sym_if, tcl_sym__conditional,
      tcl_sym_catch]"

definition tcl_small_run_909 :: "nat list" where
  "tcl_small_run_909 =
    [27, 5, 1, tcl_sym_simple_word, 11, 1, tcl_anon_sym_regexp, 13, 1, tcl_anon_sym_while, 15, 1,
      tcl_anon_sym_expr, 17, 1, tcl_anon_sym_foreach, 19, 1, tcl_anon_sym_global, 21, 1,
      tcl_anon_sym_namespace, 23, 1, tcl_anon_sym_try, 25, 1, tcl_sym_unpack, 27, 1,
      tcl_anon_sym_DOLLAR, 29, 1, tcl_anon_sym_LBRACE, 31, 1, tcl_anon_sym_set, 33, 1,
      tcl_anon_sym_proc, 35, 1, tcl_anon_sym_elseif, 37, 1, tcl_anon_sym_else, 39, 1,
      tcl_anon_sym_if, 41, 1, tcl_anon_sym_catch, 43, 1, tcl_anon_sym_DQUOTE, 45, 1,
      tcl_sym_escaped_character, 47, 1, tcl_anon_sym_LBRACK, 119, 1, tcl_sym_comment, 139, 1,
      tcl_anon_sym_RBRACE, 70, 1, tcl_aux_sym_braced_word_repeat1, 117, 2, tcl_anon_sym_LF,
      tcl_anon_sym_SEMI, 97, 2, tcl_sym__concat_word, tcl_sym_braced_word, 198, 3,
      tcl_sym_variable_substitution, tcl_sym_quoted_word, tcl_sym_command_substitution, 565, 16,
      tcl_sym_regexp, tcl_sym_while, tcl_sym_expr_cmd, tcl_sym_foreach, tcl_sym_global,
      tcl_sym_namespace, tcl_sym_try, tcl_sym__command, tcl_sym_command, tcl_sym_set,
      tcl_sym_procedure, tcl_sym_elseif, tcl_sym_else, tcl_sym_if, tcl_sym__conditional,
      tcl_sym_catch]"

definition tcl_small_run_1010 :: "nat list" where
  "tcl_small_run_1010 =
    [27, 5, 1, tcl_sym_simple_word, 11, 1, tcl_anon_sym_regexp, 13, 1, tcl_anon_sym_while, 15, 1,
      tcl_anon_sym_expr, 17, 1, tcl_anon_sym_foreach, 19, 1, tcl_anon_sym_global, 21, 1,
      tcl_anon_sym_namespace, 23, 1, tcl_anon_sym_try, 25, 1, tcl_sym_unpack, 27, 1,
      tcl_anon_sym_DOLLAR, 29, 1, tcl_anon_sym_LBRACE, 31, 1, tcl_anon_sym_set, 33, 1,
      tcl_anon_sym_proc, 35, 1, tcl_anon_sym_elseif, 37, 1, tcl_anon_sym_else, 39, 1,
      tcl_anon_sym_if, 41, 1, tcl_anon_sym_catch, 43, 1, tcl_anon_sym_DQUOTE, 45, 1,
      tcl_sym_escaped_character, 47, 1, tcl_anon_sym_LBRACK, 119, 1, tcl_sym_comment, 141, 1,
      tcl_anon_sym_RBRACE, 70, 1, tcl_aux_sym_braced_word_repeat1, 117, 2, tcl_anon_sym_LF,
      tcl_anon_sym_SEMI, 97, 2, tcl_sym__concat_word, tcl_sym_braced_word, 198, 3,
      tcl_sym_variable_substitution, tcl_sym_quoted_word, tcl_sym_command_substitution, 565, 16,
      tcl_sym_regexp, tcl_sym_while, tcl_sym_expr_cmd, tcl_sym_foreach, tcl_sym_global,
      tcl_sym_namespace, tcl_sym_try, tcl_sym__command, tcl_sym_command, tcl_sym_set,
      tcl_sym_procedure, tcl_sym_elseif, tcl_sym_else, tcl_sym_if, tcl_sym__conditional,
      tcl_sym_catch]"

definition tcl_small_run_1111 :: "nat list" where
  "tcl_small_run_1111 =
    [27, 5, 1, tcl_sym_simple_word, 11, 1, tcl_anon_sym_regexp, 13, 1, tcl_anon_sym_while, 15, 1,
      tcl_anon_sym_expr, 17, 1, tcl_anon_sym_foreach, 19, 1, tcl_anon_sym_global, 21, 1,
      tcl_anon_sym_namespace, 23, 1, tcl_anon_sym_try, 25, 1, tcl_sym_unpack, 27, 1,
      tcl_anon_sym_DOLLAR, 29, 1, tcl_anon_sym_LBRACE, 31, 1, tcl_anon_sym_set, 33, 1,
      tcl_anon_sym_proc, 35, 1, tcl_anon_sym_elseif, 37, 1, tcl_anon_sym_else, 39, 1,
      tcl_anon_sym_if, 41, 1, tcl_anon_sym_catch, 43, 1, tcl_anon_sym_DQUOTE, 45, 1,
      tcl_sym_escaped_character, 47, 1, tcl_anon_sym_LBRACK, 119, 1, tcl_sym_comment, 143, 1,
      tcl_anon_sym_RBRACE, 70, 1, tcl_aux_sym_braced_word_repeat1, 117, 2, tcl_anon_sym_LF,
      tcl_anon_sym_SEMI, 97, 2, tcl_sym__concat_word, tcl_sym_braced_word, 198, 3,
      tcl_sym_variable_substitution, tcl_sym_quoted_word, tcl_sym_command_substitution, 565, 16,
      tcl_sym_regexp, tcl_sym_while, tcl_sym_expr_cmd, tcl_sym_foreach, tcl_sym_global,
      tcl_sym_namespace, tcl_sym_try, tcl_sym__command, tcl_sym_command, tcl_sym_set,
      tcl_sym_procedure, tcl_sym_elseif, tcl_sym_else, tcl_sym_if, tcl_sym__conditional,
      tcl_sym_catch]"

definition tcl_small_run_1212 :: "nat list" where
  "tcl_small_run_1212 =
    [26, 5, 1, tcl_sym_simple_word, 11, 1, tcl_anon_sym_regexp, 13, 1, tcl_anon_sym_while, 15, 1,
      tcl_anon_sym_expr, 17, 1, tcl_anon_sym_foreach, 19, 1, tcl_anon_sym_global, 21, 1,
      tcl_anon_sym_namespace, 23, 1, tcl_anon_sym_try, 25, 1, tcl_sym_unpack, 27, 1,
      tcl_anon_sym_DOLLAR, 29, 1, tcl_anon_sym_LBRACE, 31, 1, tcl_anon_sym_set, 33, 1,
      tcl_anon_sym_proc, 35, 1, tcl_anon_sym_elseif, 37, 1, tcl_anon_sym_else, 39, 1,
      tcl_anon_sym_if, 41, 1, tcl_anon_sym_catch, 43, 1, tcl_anon_sym_DQUOTE, 45, 1,
      tcl_sym_escaped_character, 47, 1, tcl_anon_sym_LBRACK, 119, 1, tcl_sym_comment, 70, 1,
      tcl_aux_sym_braced_word_repeat1, 117, 2, tcl_anon_sym_LF, tcl_anon_sym_SEMI, 97, 2,
      tcl_sym__concat_word, tcl_sym_braced_word, 198, 3, tcl_sym_variable_substitution,
      tcl_sym_quoted_word, tcl_sym_command_substitution, 565, 16, tcl_sym_regexp, tcl_sym_while,
      tcl_sym_expr_cmd, tcl_sym_foreach, tcl_sym_global, tcl_sym_namespace, tcl_sym_try,
      tcl_sym__command, tcl_sym_command, tcl_sym_set, tcl_sym_procedure, tcl_sym_elseif,
      tcl_sym_else, tcl_sym_if, tcl_sym__conditional, tcl_sym_catch]"

definition tcl_small_run_1310 :: "nat list" where
  "tcl_small_run_1310 =
    [25, 5, 1, tcl_sym_simple_word, 11, 1, tcl_anon_sym_regexp, 13, 1, tcl_anon_sym_while, 15, 1,
      tcl_anon_sym_expr, 17, 1, tcl_anon_sym_foreach, 19, 1, tcl_anon_sym_global, 21, 1,
      tcl_anon_sym_namespace, 23, 1, tcl_anon_sym_try, 25, 1, tcl_sym_unpack, 27, 1,
      tcl_anon_sym_DOLLAR, 29, 1, tcl_anon_sym_LBRACE, 31, 1, tcl_anon_sym_set, 33, 1,
      tcl_anon_sym_proc, 35, 1, tcl_anon_sym_elseif, 37, 1, tcl_anon_sym_else, 39, 1,
      tcl_anon_sym_if, 41, 1, tcl_anon_sym_catch, 43, 1, tcl_anon_sym_DQUOTE, 47, 1,
      tcl_anon_sym_LBRACK, 145, 1, tcl_sym_comment, 147, 1, tcl_anon_sym_RBRACE, 149, 1,
      tcl_sym_escaped_character, 97, 2, tcl_sym__concat_word, tcl_sym_braced_word, 198, 3,
      tcl_sym_variable_substitution, tcl_sym_quoted_word, tcl_sym_command_substitution, 461, 16,
      tcl_sym_regexp, tcl_sym_while, tcl_sym_expr_cmd, tcl_sym_foreach, tcl_sym_global,
      tcl_sym_namespace, tcl_sym_try, tcl_sym__command, tcl_sym_command, tcl_sym_set,
      tcl_sym_procedure, tcl_sym_elseif, tcl_sym_else, tcl_sym_if, tcl_sym__conditional,
      tcl_sym_catch]"

definition tcl_small_run_1404 :: "nat list" where
  "tcl_small_run_1404 =
    [25, 5, 1, tcl_sym_simple_word, 11, 1, tcl_anon_sym_regexp, 13, 1, tcl_anon_sym_while, 15, 1,
      tcl_anon_sym_expr, 17, 1, tcl_anon_sym_foreach, 19, 1, tcl_anon_sym_global, 21, 1,
      tcl_anon_sym_namespace, 23, 1, tcl_anon_sym_try, 25, 1, tcl_sym_unpack, 27, 1,
      tcl_anon_sym_DOLLAR, 29, 1, tcl_anon_sym_LBRACE, 31, 1, tcl_anon_sym_set, 33, 1,
      tcl_anon_sym_proc, 35, 1, tcl_anon_sym_elseif, 37, 1, tcl_anon_sym_else, 39, 1,
      tcl_anon_sym_if, 41, 1, tcl_anon_sym_catch, 43, 1, tcl_anon_sym_DQUOTE, 47, 1,
      tcl_anon_sym_LBRACK, 149, 1, tcl_sym_escaped_character, 151, 1, tcl_sym_comment, 153, 1,
      tcl_anon_sym_RBRACE, 97, 2, tcl_sym__concat_word, tcl_sym_braced_word, 198, 3,
      tcl_sym_variable_substitution, tcl_sym_quoted_word, tcl_sym_command_substitution, 468, 16,
      tcl_sym_regexp, tcl_sym_while, tcl_sym_expr_cmd, tcl_sym_foreach, tcl_sym_global,
      tcl_sym_namespace, tcl_sym_try, tcl_sym__command, tcl_sym_command, tcl_sym_set,
      tcl_sym_procedure, tcl_sym_elseif, tcl_sym_else, tcl_sym_if, tcl_sym__conditional,
      tcl_sym_catch]"

definition tcl_small_run_1498 :: "nat list" where
  "tcl_small_run_1498 =
    [25, 5, 1, tcl_sym_simple_word, 11, 1, tcl_anon_sym_regexp, 13, 1, tcl_anon_sym_while, 15, 1,
      tcl_anon_sym_expr, 17, 1, tcl_anon_sym_foreach, 19, 1, tcl_anon_sym_global, 21, 1,
      tcl_anon_sym_namespace, 23, 1, tcl_anon_sym_try, 25, 1, tcl_sym_unpack, 27, 1,
      tcl_anon_sym_DOLLAR, 29, 1, tcl_anon_sym_LBRACE, 31, 1, tcl_anon_sym_set, 33, 1,
      tcl_anon_sym_proc, 35, 1, tcl_anon_sym_elseif, 37, 1, tcl_anon_sym_else, 39, 1,
      tcl_anon_sym_if, 41, 1, tcl_anon_sym_catch, 43, 1, tcl_anon_sym_DQUOTE, 47, 1,
      tcl_anon_sym_LBRACK, 149, 1, tcl_sym_escaped_character, 155, 1, tcl_sym_comment, 157, 1,
      tcl_anon_sym_RBRACE, 97, 2, tcl_sym__concat_word, tcl_sym_braced_word, 198, 3,
      tcl_sym_variable_substitution, tcl_sym_quoted_word, tcl_sym_command_substitution, 480, 16,
      tcl_sym_regexp, tcl_sym_while, tcl_sym_expr_cmd, tcl_sym_foreach, tcl_sym_global,
      tcl_sym_namespace, tcl_sym_try, tcl_sym__command, tcl_sym_command, tcl_sym_set,
      tcl_sym_procedure, tcl_sym_elseif, tcl_sym_else, tcl_sym_if, tcl_sym__conditional,
      tcl_sym_catch]"

definition tcl_small_run_1592 :: "nat list" where
  "tcl_small_run_1592 =
    [25, 5, 1, tcl_sym_simple_word, 11, 1, tcl_anon_sym_regexp, 13, 1, tcl_anon_sym_while, 15, 1,
      tcl_anon_sym_expr, 17, 1, tcl_anon_sym_foreach, 19, 1, tcl_anon_sym_global, 21, 1,
      tcl_anon_sym_namespace, 23, 1, tcl_anon_sym_try, 25, 1, tcl_sym_unpack, 27, 1,
      tcl_anon_sym_DOLLAR, 29, 1, tcl_anon_sym_LBRACE, 31, 1, tcl_anon_sym_set, 33, 1,
      tcl_anon_sym_proc, 35, 1, tcl_anon_sym_elseif, 37, 1, tcl_anon_sym_else, 39, 1,
      tcl_anon_sym_if, 41, 1, tcl_anon_sym_catch, 43, 1, tcl_anon_sym_DQUOTE, 47, 1,
      tcl_anon_sym_LBRACK, 149, 1, tcl_sym_escaped_character, 159, 1, tcl_sym_comment, 161, 1,
      tcl_anon_sym_RBRACE, 97, 2, tcl_sym__concat_word, tcl_sym_braced_word, 198, 3,
      tcl_sym_variable_substitution, tcl_sym_quoted_word, tcl_sym_command_substitution, 492, 16,
      tcl_sym_regexp, tcl_sym_while, tcl_sym_expr_cmd, tcl_sym_foreach, tcl_sym_global,
      tcl_sym_namespace, tcl_sym_try, tcl_sym__command, tcl_sym_command, tcl_sym_set,
      tcl_sym_procedure, tcl_sym_elseif, tcl_sym_else, tcl_sym_if, tcl_sym__conditional,
      tcl_sym_catch]"

definition tcl_small_run_1686 :: "nat list" where
  "tcl_small_run_1686 =
    [25, 5, 1, tcl_sym_simple_word, 11, 1, tcl_anon_sym_regexp, 13, 1, tcl_anon_sym_while, 15, 1,
      tcl_anon_sym_expr, 17, 1, tcl_anon_sym_foreach, 19, 1, tcl_anon_sym_global, 21, 1,
      tcl_anon_sym_namespace, 23, 1, tcl_anon_sym_try, 25, 1, tcl_sym_unpack, 27, 1,
      tcl_anon_sym_DOLLAR, 29, 1, tcl_anon_sym_LBRACE, 31, 1, tcl_anon_sym_set, 33, 1,
      tcl_anon_sym_proc, 35, 1, tcl_anon_sym_elseif, 37, 1, tcl_anon_sym_else, 39, 1,
      tcl_anon_sym_if, 41, 1, tcl_anon_sym_catch, 43, 1, tcl_anon_sym_DQUOTE, 47, 1,
      tcl_anon_sym_LBRACK, 149, 1, tcl_sym_escaped_character, 163, 1, tcl_sym_comment, 165, 1,
      tcl_anon_sym_RBRACE, 97, 2, tcl_sym__concat_word, tcl_sym_braced_word, 198, 3,
      tcl_sym_variable_substitution, tcl_sym_quoted_word, tcl_sym_command_substitution, 485, 16,
      tcl_sym_regexp, tcl_sym_while, tcl_sym_expr_cmd, tcl_sym_foreach, tcl_sym_global,
      tcl_sym_namespace, tcl_sym_try, tcl_sym__command, tcl_sym_command, tcl_sym_set,
      tcl_sym_procedure, tcl_sym_elseif, tcl_sym_else, tcl_sym_if, tcl_sym__conditional,
      tcl_sym_catch]"

definition tcl_small_run_1780 :: "nat list" where
  "tcl_small_run_1780 =
    [24, 167, 1, tcl_sym_simple_word, 169, 1, tcl_sym_comment, 171, 1, tcl_anon_sym_regexp, 173,
      1, tcl_anon_sym_while, 175, 1, tcl_anon_sym_expr, 177, 1, tcl_anon_sym_foreach, 179, 1,
      tcl_anon_sym_global, 181, 1, tcl_anon_sym_namespace, 183, 1, tcl_anon_sym_try, 185, 1,
      tcl_sym_unpack, 187, 1, tcl_anon_sym_DOLLAR, 189, 1, tcl_anon_sym_LBRACE, 191, 1,
      tcl_anon_sym_set, 193, 1, tcl_anon_sym_proc, 195, 1, tcl_anon_sym_elseif, 197, 1,
      tcl_anon_sym_else, 199, 1, tcl_anon_sym_if, 201, 1, tcl_anon_sym_catch, 203, 1,
      tcl_anon_sym_DQUOTE, 205, 1, tcl_sym_escaped_character, 207, 1, tcl_anon_sym_LBRACK, 105,
      2, tcl_sym__concat_word, tcl_sym_braced_word, 304, 3, tcl_sym_variable_substitution,
      tcl_sym_quoted_word, tcl_sym_command_substitution, 639, 16, tcl_sym_regexp, tcl_sym_while,
      tcl_sym_expr_cmd, tcl_sym_foreach, tcl_sym_global, tcl_sym_namespace, tcl_sym_try,
      tcl_sym__command, tcl_sym_command, tcl_sym_set, tcl_sym_procedure, tcl_sym_elseif,
      tcl_sym_else, tcl_sym_if, tcl_sym__conditional, tcl_sym_catch]"

definition tcl_small_run_1871 :: "nat list" where
  "tcl_small_run_1871 =
    [24, 167, 1, tcl_sym_simple_word, 171, 1, tcl_anon_sym_regexp, 173, 1, tcl_anon_sym_while,
      175, 1, tcl_anon_sym_expr, 177, 1, tcl_anon_sym_foreach, 179, 1, tcl_anon_sym_global, 181,
      1, tcl_anon_sym_namespace, 183, 1, tcl_anon_sym_try, 185, 1, tcl_sym_unpack, 187, 1,
      tcl_anon_sym_DOLLAR, 189, 1, tcl_anon_sym_LBRACE, 191, 1, tcl_anon_sym_set, 193, 1,
      tcl_anon_sym_proc, 195, 1, tcl_anon_sym_elseif, 197, 1, tcl_anon_sym_else, 199, 1,
      tcl_anon_sym_if, 201, 1, tcl_anon_sym_catch, 203, 1, tcl_anon_sym_DQUOTE, 205, 1,
      tcl_sym_escaped_character, 207, 1, tcl_anon_sym_LBRACK, 209, 1, tcl_sym_comment, 105, 2,
      tcl_sym__concat_word, tcl_sym_braced_word, 304, 3, tcl_sym_variable_substitution,
      tcl_sym_quoted_word, tcl_sym_command_substitution, 645, 16, tcl_sym_regexp, tcl_sym_while,
      tcl_sym_expr_cmd, tcl_sym_foreach, tcl_sym_global, tcl_sym_namespace, tcl_sym_try,
      tcl_sym__command, tcl_sym_command, tcl_sym_set, tcl_sym_procedure, tcl_sym_elseif,
      tcl_sym_else, tcl_sym_if, tcl_sym__conditional, tcl_sym_catch]"

definition tcl_small_run_1962 :: "nat list" where
  "tcl_small_run_1962 =
    [24, 167, 1, tcl_sym_simple_word, 171, 1, tcl_anon_sym_regexp, 173, 1, tcl_anon_sym_while,
      175, 1, tcl_anon_sym_expr, 177, 1, tcl_anon_sym_foreach, 179, 1, tcl_anon_sym_global, 181,
      1, tcl_anon_sym_namespace, 183, 1, tcl_anon_sym_try, 185, 1, tcl_sym_unpack, 187, 1,
      tcl_anon_sym_DOLLAR, 189, 1, tcl_anon_sym_LBRACE, 191, 1, tcl_anon_sym_set, 193, 1,
      tcl_anon_sym_proc, 195, 1, tcl_anon_sym_elseif, 197, 1, tcl_anon_sym_else, 199, 1,
      tcl_anon_sym_if, 201, 1, tcl_anon_sym_catch, 203, 1, tcl_anon_sym_DQUOTE, 205, 1,
      tcl_sym_escaped_character, 207, 1, tcl_anon_sym_LBRACK, 211, 1, tcl_sym_comment, 105, 2,
      tcl_sym__concat_word, tcl_sym_braced_word, 304, 3, tcl_sym_variable_substitution,
      tcl_sym_quoted_word, tcl_sym_command_substitution, 700, 16, tcl_sym_regexp, tcl_sym_while,
      tcl_sym_expr_cmd, tcl_sym_foreach, tcl_sym_global, tcl_sym_namespace, tcl_sym_try,
      tcl_sym__command, tcl_sym_command, tcl_sym_set, tcl_sym_procedure, tcl_sym_elseif,
      tcl_sym_else, tcl_sym_if, tcl_sym__conditional, tcl_sym_catch]"

definition tcl_small_run_2053 :: "nat list" where
  "tcl_small_run_2053 =
    [24, 167, 1, tcl_sym_simple_word, 171, 1, tcl_anon_sym_regexp, 173, 1, tcl_anon_sym_while,
      175, 1, tcl_anon_sym_expr, 177, 1, tcl_anon_sym_foreach, 179, 1, tcl_anon_sym_global, 181,
      1, tcl_anon_sym_namespace, 183, 1, tcl_anon_sym_try, 185, 1, tcl_sym_unpack, 187, 1,
      tcl_anon_sym_DOLLAR, 189, 1, tcl_anon_sym_LBRACE, 191, 1, tcl_anon_sym_set, 193, 1,
      tcl_anon_sym_proc, 195, 1, tcl_anon_sym_elseif, 197, 1, tcl_anon_sym_else, 199, 1,
      tcl_anon_sym_if, 201, 1, tcl_anon_sym_catch, 203, 1, tcl_anon_sym_DQUOTE, 205, 1,
      tcl_sym_escaped_character, 207, 1, tcl_anon_sym_LBRACK, 213, 1, tcl_sym_comment, 105, 2,
      tcl_sym__concat_word, tcl_sym_braced_word, 304, 3, tcl_sym_variable_substitution,
      tcl_sym_quoted_word, tcl_sym_command_substitution, 683, 16, tcl_sym_regexp, tcl_sym_while,
      tcl_sym_expr_cmd, tcl_sym_foreach, tcl_sym_global, tcl_sym_namespace, tcl_sym_try,
      tcl_sym__command, tcl_sym_command, tcl_sym_set, tcl_sym_procedure, tcl_sym_elseif,
      tcl_sym_else, tcl_sym_if, tcl_sym__conditional, tcl_sym_catch]"

definition tcl_small_run_2144 :: "nat list" where
  "tcl_small_run_2144 =
    [24, 167, 1, tcl_sym_simple_word, 171, 1, tcl_anon_sym_regexp, 173, 1, tcl_anon_sym_while,
      175, 1, tcl_anon_sym_expr, 177, 1, tcl_anon_sym_foreach, 179, 1, tcl_anon_sym_global, 181,
      1, tcl_anon_sym_namespace, 183, 1, tcl_anon_sym_try, 185, 1, tcl_sym_unpack, 187, 1,
      tcl_anon_sym_DOLLAR, 189, 1, tcl_anon_sym_LBRACE, 191, 1, tcl_anon_sym_set, 193, 1,
      tcl_anon_sym_proc, 195, 1, tcl_anon_sym_elseif, 197, 1, tcl_anon_sym_else, 199, 1,
      tcl_anon_sym_if, 201, 1, tcl_anon_sym_catch, 203, 1, tcl_anon_sym_DQUOTE, 205, 1,
      tcl_sym_escaped_character, 207, 1, tcl_anon_sym_LBRACK, 215, 1, tcl_sym_comment, 105, 2,
      tcl_sym__concat_word, tcl_sym_braced_word, 304, 3, tcl_sym_variable_substitution,
      tcl_sym_quoted_word, tcl_sym_command_substitution, 680, 16, tcl_sym_regexp, tcl_sym_while,
      tcl_sym_expr_cmd, tcl_sym_foreach, tcl_sym_global, tcl_sym_namespace, tcl_sym_try,
      tcl_sym__command, tcl_sym_command, tcl_sym_set, tcl_sym_procedure, tcl_sym_elseif,
      tcl_sym_else, tcl_sym_if, tcl_sym__conditional, tcl_sym_catch]"

definition tcl_small_run_2235 :: "nat list" where
  "tcl_small_run_2235 =
    [24, 167, 1, tcl_sym_simple_word, 171, 1, tcl_anon_sym_regexp, 173, 1, tcl_anon_sym_while,
      175, 1, tcl_anon_sym_expr, 177, 1, tcl_anon_sym_foreach, 179, 1, tcl_anon_sym_global, 181,
      1, tcl_anon_sym_namespace, 183, 1, tcl_anon_sym_try, 185, 1, tcl_sym_unpack, 187, 1,
      tcl_anon_sym_DOLLAR, 189, 1, tcl_anon_sym_LBRACE, 191, 1, tcl_anon_sym_set, 193, 1,
      tcl_anon_sym_proc, 195, 1, tcl_anon_sym_elseif, 197, 1, tcl_anon_sym_else, 199, 1,
      tcl_anon_sym_if, 201, 1, tcl_anon_sym_catch, 203, 1, tcl_anon_sym_DQUOTE, 205, 1,
      tcl_sym_escaped_character, 207, 1, tcl_anon_sym_LBRACK, 217, 1, tcl_sym_comment, 105, 2,
      tcl_sym__concat_word, tcl_sym_braced_word, 304, 3, tcl_sym_variable_substitution,
      tcl_sym_quoted_word, tcl_sym_command_substitution, 663, 16, tcl_sym_regexp, tcl_sym_while,
      tcl_sym_expr_cmd, tcl_sym_foreach, tcl_sym_global, tcl_sym_namespace, tcl_sym_try,
      tcl_sym__command, tcl_sym_command, tcl_sym_set, tcl_sym_procedure, tcl_sym_elseif,
      tcl_sym_else, tcl_sym_if, tcl_sym__conditional, tcl_sym_catch]"

definition tcl_small_run_2326 :: "nat list" where
  "tcl_small_run_2326 =
    [24, 167, 1, tcl_sym_simple_word, 171, 1, tcl_anon_sym_regexp, 173, 1, tcl_anon_sym_while,
      175, 1, tcl_anon_sym_expr, 177, 1, tcl_anon_sym_foreach, 179, 1, tcl_anon_sym_global, 181,
      1, tcl_anon_sym_namespace, 183, 1, tcl_anon_sym_try, 185, 1, tcl_sym_unpack, 187, 1,
      tcl_anon_sym_DOLLAR, 189, 1, tcl_anon_sym_LBRACE, 191, 1, tcl_anon_sym_set, 193, 1,
      tcl_anon_sym_proc, 195, 1, tcl_anon_sym_elseif, 197, 1, tcl_anon_sym_else, 199, 1,
      tcl_anon_sym_if, 201, 1, tcl_anon_sym_catch, 203, 1, tcl_anon_sym_DQUOTE, 205, 1,
      tcl_sym_escaped_character, 207, 1, tcl_anon_sym_LBRACK, 219, 1, tcl_sym_comment, 105, 2,
      tcl_sym__concat_word, tcl_sym_braced_word, 304, 3, tcl_sym_variable_substitution,
      tcl_sym_quoted_word, tcl_sym_command_substitution, 619, 16, tcl_sym_regexp, tcl_sym_while,
      tcl_sym_expr_cmd, tcl_sym_foreach, tcl_sym_global, tcl_sym_namespace, tcl_sym_try,
      tcl_sym__command, tcl_sym_command, tcl_sym_set, tcl_sym_procedure, tcl_sym_elseif,
      tcl_sym_else, tcl_sym_if, tcl_sym__conditional, tcl_sym_catch]"

definition tcl_small_run_2417 :: "nat list" where
  "tcl_small_run_2417 =
    [24, 167, 1, tcl_sym_simple_word, 171, 1, tcl_anon_sym_regexp, 173, 1, tcl_anon_sym_while,
      175, 1, tcl_anon_sym_expr, 177, 1, tcl_anon_sym_foreach, 179, 1, tcl_anon_sym_global, 181,
      1, tcl_anon_sym_namespace, 183, 1, tcl_anon_sym_try, 185, 1, tcl_sym_unpack, 187, 1,
      tcl_anon_sym_DOLLAR, 189, 1, tcl_anon_sym_LBRACE, 191, 1, tcl_anon_sym_set, 193, 1,
      tcl_anon_sym_proc, 195, 1, tcl_anon_sym_elseif, 197, 1, tcl_anon_sym_else, 199, 1,
      tcl_anon_sym_if, 201, 1, tcl_anon_sym_catch, 203, 1, tcl_anon_sym_DQUOTE, 205, 1,
      tcl_sym_escaped_character, 207, 1, tcl_anon_sym_LBRACK, 221, 1, tcl_sym_comment, 105, 2,
      tcl_sym__concat_word, tcl_sym_braced_word, 304, 3, tcl_sym_variable_substitution,
      tcl_sym_quoted_word, tcl_sym_command_substitution, 615, 16, tcl_sym_regexp, tcl_sym_while,
      tcl_sym_expr_cmd, tcl_sym_foreach, tcl_sym_global, tcl_sym_namespace, tcl_sym_try,
      tcl_sym__command, tcl_sym_command, tcl_sym_set, tcl_sym_procedure, tcl_sym_elseif,
      tcl_sym_else, tcl_sym_if, tcl_sym__conditional, tcl_sym_catch]"

definition tcl_small_run_2508 :: "nat list" where
  "tcl_small_run_2508 =
    [24, 167, 1, tcl_sym_simple_word, 171, 1, tcl_anon_sym_regexp, 173, 1, tcl_anon_sym_while,
      175, 1, tcl_anon_sym_expr, 177, 1, tcl_anon_sym_foreach, 179, 1, tcl_anon_sym_global, 181,
      1, tcl_anon_sym_namespace, 183, 1, tcl_anon_sym_try, 185, 1, tcl_sym_unpack, 187, 1,
      tcl_anon_sym_DOLLAR, 189, 1, tcl_anon_sym_LBRACE, 191, 1, tcl_anon_sym_set, 193, 1,
      tcl_anon_sym_proc, 195, 1, tcl_anon_sym_elseif, 197, 1, tcl_anon_sym_else, 199, 1,
      tcl_anon_sym_if, 201, 1, tcl_anon_sym_catch, 203, 1, tcl_anon_sym_DQUOTE, 205, 1,
      tcl_sym_escaped_character, 207, 1, tcl_anon_sym_LBRACK, 223, 1, tcl_sym_comment, 105, 2,
      tcl_sym__concat_word, tcl_sym_braced_word, 304, 3, tcl_sym_variable_substitution,
      tcl_sym_quoted_word, tcl_sym_command_substitution, 623, 16, tcl_sym_regexp, tcl_sym_while,
      tcl_sym_expr_cmd, tcl_sym_foreach, tcl_sym_global, tcl_sym_namespace, tcl_sym_try,
      tcl_sym__command, tcl_sym_command, tcl_sym_set, tcl_sym_procedure, tcl_sym_elseif,
      tcl_sym_else, tcl_sym_if, tcl_sym__conditional, tcl_sym_catch]"

definition tcl_small_run_2599 :: "nat list" where
  "tcl_small_run_2599 =
    [24, 167, 1, tcl_sym_simple_word, 171, 1, tcl_anon_sym_regexp, 173, 1, tcl_anon_sym_while,
      175, 1, tcl_anon_sym_expr, 177, 1, tcl_anon_sym_foreach, 179, 1, tcl_anon_sym_global, 181,
      1, tcl_anon_sym_namespace, 183, 1, tcl_anon_sym_try, 185, 1, tcl_sym_unpack, 187, 1,
      tcl_anon_sym_DOLLAR, 189, 1, tcl_anon_sym_LBRACE, 191, 1, tcl_anon_sym_set, 193, 1,
      tcl_anon_sym_proc, 195, 1, tcl_anon_sym_elseif, 197, 1, tcl_anon_sym_else, 199, 1,
      tcl_anon_sym_if, 201, 1, tcl_anon_sym_catch, 203, 1, tcl_anon_sym_DQUOTE, 205, 1,
      tcl_sym_escaped_character, 207, 1, tcl_anon_sym_LBRACK, 225, 1, tcl_sym_comment, 105, 2,
      tcl_sym__concat_word, tcl_sym_braced_word, 304, 3, tcl_sym_variable_substitution,
      tcl_sym_quoted_word, tcl_sym_command_substitution, 603, 16, tcl_sym_regexp, tcl_sym_while,
      tcl_sym_expr_cmd, tcl_sym_foreach, tcl_sym_global, tcl_sym_namespace, tcl_sym_try,
      tcl_sym__command, tcl_sym_command, tcl_sym_set, tcl_sym_procedure, tcl_sym_elseif,
      tcl_sym_else, tcl_sym_if, tcl_sym__conditional, tcl_sym_catch]"

definition tcl_small_run_2690 :: "nat list" where
  "tcl_small_run_2690 =
    [5, 227, 1, tcl_anon_sym_COLON_COLON, 31, 1, tcl_aux_sym__id_immediate_repeat1, 650, 1,
      tcl_sym__ns_delim, 231, 6, tcl_anon_sym_STAR, tcl_anon_sym_GT, tcl_anon_sym_LT,
      tcl_anon_sym_AMP, tcl_anon_sym_PIPE, tcl_anon_sym_COLON, 229, 23, tcl_anon_sym_LPAREN,
      tcl_anon_sym_RPAREN, tcl_anon_sym_RBRACE, tcl_anon_sym_DASH, tcl_anon_sym_PLUS,
      tcl_anon_sym_STAR_STAR, tcl_anon_sym_SLASH, tcl_anon_sym_PERCENT, tcl_anon_sym_LT_LT,
      tcl_anon_sym_GT_GT, tcl_anon_sym_GT_EQ, tcl_anon_sym_LT_EQ, tcl_anon_sym_EQ_EQ,
      tcl_anon_sym_BANG_EQ, tcl_anon_sym_eq, tcl_anon_sym_ne, tcl_anon_sym_in, tcl_anon_sym_ni,
      tcl_anon_sym_CARET, tcl_anon_sym_AMP_AMP, tcl_anon_sym_PIPE_PIPE, tcl_anon_sym_QMARK,
      tcl_anon_sym_RBRACK]"

definition tcl_small_run_2733 :: "nat list" where
  "tcl_small_run_2733 =
    [5, 233, 1, tcl_anon_sym_COLON_COLON, 31, 1, tcl_aux_sym__id_immediate_repeat1, 650, 1,
      tcl_sym__ns_delim, 238, 6, tcl_anon_sym_STAR, tcl_anon_sym_GT, tcl_anon_sym_LT,
      tcl_anon_sym_AMP, tcl_anon_sym_PIPE, tcl_anon_sym_COLON, 236, 23, tcl_anon_sym_LPAREN,
      tcl_anon_sym_RPAREN, tcl_anon_sym_RBRACE, tcl_anon_sym_DASH, tcl_anon_sym_PLUS,
      tcl_anon_sym_STAR_STAR, tcl_anon_sym_SLASH, tcl_anon_sym_PERCENT, tcl_anon_sym_LT_LT,
      tcl_anon_sym_GT_GT, tcl_anon_sym_GT_EQ, tcl_anon_sym_LT_EQ, tcl_anon_sym_EQ_EQ,
      tcl_anon_sym_BANG_EQ, tcl_anon_sym_eq, tcl_anon_sym_ne, tcl_anon_sym_in, tcl_anon_sym_ni,
      tcl_anon_sym_CARET, tcl_anon_sym_AMP_AMP, tcl_anon_sym_PIPE_PIPE, tcl_anon_sym_QMARK,
      tcl_anon_sym_RBRACK]"

definition tcl_small_run_2776 :: "nat list" where
  "tcl_small_run_2776 =
    [5, 227, 1, tcl_anon_sym_COLON_COLON, 33, 1, tcl_aux_sym__id_immediate_repeat1, 650, 1,
      tcl_sym__ns_delim, 242, 6, tcl_anon_sym_STAR, tcl_anon_sym_GT, tcl_anon_sym_LT,
      tcl_anon_sym_AMP, tcl_anon_sym_PIPE, tcl_anon_sym_COLON, 240, 23, tcl_anon_sym_LPAREN,
      tcl_anon_sym_RPAREN, tcl_anon_sym_RBRACE, tcl_anon_sym_DASH, tcl_anon_sym_PLUS,
      tcl_anon_sym_STAR_STAR, tcl_anon_sym_SLASH, tcl_anon_sym_PERCENT, tcl_anon_sym_LT_LT,
      tcl_anon_sym_GT_GT, tcl_anon_sym_GT_EQ, tcl_anon_sym_LT_EQ, tcl_anon_sym_EQ_EQ,
      tcl_anon_sym_BANG_EQ, tcl_anon_sym_eq, tcl_anon_sym_ne, tcl_anon_sym_in, tcl_anon_sym_ni,
      tcl_anon_sym_CARET, tcl_anon_sym_AMP_AMP, tcl_anon_sym_PIPE_PIPE, tcl_anon_sym_QMARK,
      tcl_anon_sym_RBRACK]"

definition tcl_small_run_2819 :: "nat list" where
  "tcl_small_run_2819 =
    [5, 227, 1, tcl_anon_sym_COLON_COLON, 31, 1, tcl_aux_sym__id_immediate_repeat1, 650, 1,
      tcl_sym__ns_delim, 246, 6, tcl_anon_sym_STAR, tcl_anon_sym_GT, tcl_anon_sym_LT,
      tcl_anon_sym_AMP, tcl_anon_sym_PIPE, tcl_anon_sym_COLON, 244, 23, tcl_anon_sym_LPAREN,
      tcl_anon_sym_RPAREN, tcl_anon_sym_RBRACE, tcl_anon_sym_DASH, tcl_anon_sym_PLUS,
      tcl_anon_sym_STAR_STAR, tcl_anon_sym_SLASH, tcl_anon_sym_PERCENT, tcl_anon_sym_LT_LT,
      tcl_anon_sym_GT_GT, tcl_anon_sym_GT_EQ, tcl_anon_sym_LT_EQ, tcl_anon_sym_EQ_EQ,
      tcl_anon_sym_BANG_EQ, tcl_anon_sym_eq, tcl_anon_sym_ne, tcl_anon_sym_in, tcl_anon_sym_ni,
      tcl_anon_sym_CARET, tcl_anon_sym_AMP_AMP, tcl_anon_sym_PIPE_PIPE, tcl_anon_sym_QMARK,
      tcl_anon_sym_RBRACK]"

definition tcl_small_run_2862 :: "nat list" where
  "tcl_small_run_2862 =
    [5, 227, 1, tcl_anon_sym_COLON_COLON, 30, 1, tcl_aux_sym__id_immediate_repeat1, 650, 1,
      tcl_sym__ns_delim, 246, 6, tcl_anon_sym_STAR, tcl_anon_sym_GT, tcl_anon_sym_LT,
      tcl_anon_sym_AMP, tcl_anon_sym_PIPE, tcl_anon_sym_COLON, 244, 23, tcl_anon_sym_LPAREN,
      tcl_anon_sym_RPAREN, tcl_anon_sym_RBRACE, tcl_anon_sym_DASH, tcl_anon_sym_PLUS,
      tcl_anon_sym_STAR_STAR, tcl_anon_sym_SLASH, tcl_anon_sym_PERCENT, tcl_anon_sym_LT_LT,
      tcl_anon_sym_GT_GT, tcl_anon_sym_GT_EQ, tcl_anon_sym_LT_EQ, tcl_anon_sym_EQ_EQ,
      tcl_anon_sym_BANG_EQ, tcl_anon_sym_eq, tcl_anon_sym_ne, tcl_anon_sym_in, tcl_anon_sym_ni,
      tcl_anon_sym_CARET, tcl_anon_sym_AMP_AMP, tcl_anon_sym_PIPE_PIPE, tcl_anon_sym_QMARK,
      tcl_anon_sym_RBRACK]"

definition tcl_small_run_2905 :: "nat list" where
  "tcl_small_run_2905 =
    [2, 238, 6, tcl_anon_sym_STAR, tcl_anon_sym_GT, tcl_anon_sym_LT, tcl_anon_sym_AMP,
      tcl_anon_sym_PIPE, tcl_anon_sym_COLON, 236, 24, tcl_anon_sym_COLON_COLON,
      tcl_anon_sym_LPAREN, tcl_anon_sym_RPAREN, tcl_anon_sym_RBRACE, tcl_anon_sym_DASH,
      tcl_anon_sym_PLUS, tcl_anon_sym_STAR_STAR, tcl_anon_sym_SLASH, tcl_anon_sym_PERCENT,
      tcl_anon_sym_LT_LT, tcl_anon_sym_GT_GT, tcl_anon_sym_GT_EQ, tcl_anon_sym_LT_EQ,
      tcl_anon_sym_EQ_EQ, tcl_anon_sym_BANG_EQ, tcl_anon_sym_eq, tcl_anon_sym_ne,
      tcl_anon_sym_in, tcl_anon_sym_ni, tcl_anon_sym_CARET, tcl_anon_sym_AMP_AMP,
      tcl_anon_sym_PIPE_PIPE, tcl_anon_sym_QMARK, tcl_anon_sym_RBRACK]"

definition tcl_small_run_2940 :: "nat list" where
  "tcl_small_run_2940 =
    [4, 248, 1, tcl_anon_sym_LPAREN, 43, 1, tcl_sym_array_index, 252, 5, tcl_anon_sym_STAR,
      tcl_anon_sym_GT, tcl_anon_sym_LT, tcl_anon_sym_AMP, tcl_anon_sym_PIPE, 250, 23,
      tcl_anon_sym_RPAREN, tcl_anon_sym_RBRACE, tcl_anon_sym_DASH, tcl_anon_sym_PLUS,
      tcl_anon_sym_STAR_STAR, tcl_anon_sym_SLASH, tcl_anon_sym_PERCENT, tcl_anon_sym_LT_LT,
      tcl_anon_sym_GT_GT, tcl_anon_sym_GT_EQ, tcl_anon_sym_LT_EQ, tcl_anon_sym_EQ_EQ,
      tcl_anon_sym_BANG_EQ, tcl_anon_sym_eq, tcl_anon_sym_ne, tcl_anon_sym_in, tcl_anon_sym_ni,
      tcl_anon_sym_CARET, tcl_anon_sym_AMP_AMP, tcl_anon_sym_PIPE_PIPE, tcl_anon_sym_QMARK,
      tcl_anon_sym_COLON, tcl_anon_sym_RBRACK]"

definition tcl_small_run_2979 :: "nat list" where
  "tcl_small_run_2979 =
    [4, 248, 1, tcl_anon_sym_LPAREN, 40, 1, tcl_sym_array_index, 256, 5, tcl_anon_sym_STAR,
      tcl_anon_sym_GT, tcl_anon_sym_LT, tcl_anon_sym_AMP, tcl_anon_sym_PIPE, 254, 23,
      tcl_anon_sym_RPAREN, tcl_anon_sym_RBRACE, tcl_anon_sym_DASH, tcl_anon_sym_PLUS,
      tcl_anon_sym_STAR_STAR, tcl_anon_sym_SLASH, tcl_anon_sym_PERCENT, tcl_anon_sym_LT_LT,
      tcl_anon_sym_GT_GT, tcl_anon_sym_GT_EQ, tcl_anon_sym_LT_EQ, tcl_anon_sym_EQ_EQ,
      tcl_anon_sym_BANG_EQ, tcl_anon_sym_eq, tcl_anon_sym_ne, tcl_anon_sym_in, tcl_anon_sym_ni,
      tcl_anon_sym_CARET, tcl_anon_sym_AMP_AMP, tcl_anon_sym_PIPE_PIPE, tcl_anon_sym_QMARK,
      tcl_anon_sym_COLON, tcl_anon_sym_RBRACK]"

definition tcl_small_run_3018 :: "nat list" where
  "tcl_small_run_3018 =
    [2, 260, 5, tcl_anon_sym_STAR, tcl_anon_sym_GT, tcl_anon_sym_LT, tcl_anon_sym_AMP,
      tcl_anon_sym_PIPE, 258, 23, tcl_anon_sym_RPAREN, tcl_anon_sym_RBRACE, tcl_anon_sym_DASH,
      tcl_anon_sym_PLUS, tcl_anon_sym_STAR_STAR, tcl_anon_sym_SLASH, tcl_anon_sym_PERCENT,
      tcl_anon_sym_LT_LT, tcl_anon_sym_GT_GT, tcl_anon_sym_GT_EQ, tcl_anon_sym_LT_EQ,
      tcl_anon_sym_EQ_EQ, tcl_anon_sym_BANG_EQ, tcl_anon_sym_eq, tcl_anon_sym_ne,
      tcl_anon_sym_in, tcl_anon_sym_ni, tcl_anon_sym_CARET, tcl_anon_sym_AMP_AMP,
      tcl_anon_sym_PIPE_PIPE, tcl_anon_sym_QMARK, tcl_anon_sym_COLON, tcl_anon_sym_RBRACK]"

definition tcl_small_run_3051 :: "nat list" where
  "tcl_small_run_3051 =
    [2, 264, 5, tcl_anon_sym_STAR, tcl_anon_sym_GT, tcl_anon_sym_LT, tcl_anon_sym_AMP,
      tcl_anon_sym_PIPE, 262, 23, tcl_anon_sym_RPAREN, tcl_anon_sym_RBRACE, tcl_anon_sym_DASH,
      tcl_anon_sym_PLUS, tcl_anon_sym_STAR_STAR, tcl_anon_sym_SLASH, tcl_anon_sym_PERCENT,
      tcl_anon_sym_LT_LT, tcl_anon_sym_GT_GT, tcl_anon_sym_GT_EQ, tcl_anon_sym_LT_EQ,
      tcl_anon_sym_EQ_EQ, tcl_anon_sym_BANG_EQ, tcl_anon_sym_eq, tcl_anon_sym_ne,
      tcl_anon_sym_in, tcl_anon_sym_ni, tcl_anon_sym_CARET, tcl_anon_sym_AMP_AMP,
      tcl_anon_sym_PIPE_PIPE, tcl_anon_sym_QMARK, tcl_anon_sym_COLON, tcl_anon_sym_RBRACK]"

definition tcl_small_run_3084 :: "nat list" where
  "tcl_small_run_3084 =
    [2, 268, 5, tcl_anon_sym_STAR, tcl_anon_sym_GT, tcl_anon_sym_LT, tcl_anon_sym_AMP,
      tcl_anon_sym_PIPE, 266, 23, tcl_anon_sym_RPAREN, tcl_anon_sym_RBRACE, tcl_anon_sym_DASH,
      tcl_anon_sym_PLUS, tcl_anon_sym_STAR_STAR, tcl_anon_sym_SLASH, tcl_anon_sym_PERCENT,
      tcl_anon_sym_LT_LT, tcl_anon_sym_GT_GT, tcl_anon_sym_GT_EQ, tcl_anon_sym_LT_EQ,
      tcl_anon_sym_EQ_EQ, tcl_anon_sym_BANG_EQ, tcl_anon_sym_eq, tcl_anon_sym_ne,
      tcl_anon_sym_in, tcl_anon_sym_ni, tcl_anon_sym_CARET, tcl_anon_sym_AMP_AMP,
      tcl_anon_sym_PIPE_PIPE, tcl_anon_sym_QMARK, tcl_anon_sym_COLON, tcl_anon_sym_RBRACK]"

definition tcl_small_run_3117 :: "nat list" where
  "tcl_small_run_3117 =
    [2, 272, 5, tcl_anon_sym_STAR, tcl_anon_sym_GT, tcl_anon_sym_LT, tcl_anon_sym_AMP,
      tcl_anon_sym_PIPE, 270, 23, tcl_anon_sym_RPAREN, tcl_anon_sym_RBRACE, tcl_anon_sym_DASH,
      tcl_anon_sym_PLUS, tcl_anon_sym_STAR_STAR, tcl_anon_sym_SLASH, tcl_anon_sym_PERCENT,
      tcl_anon_sym_LT_LT, tcl_anon_sym_GT_GT, tcl_anon_sym_GT_EQ, tcl_anon_sym_LT_EQ,
      tcl_anon_sym_EQ_EQ, tcl_anon_sym_BANG_EQ, tcl_anon_sym_eq, tcl_anon_sym_ne,
      tcl_anon_sym_in, tcl_anon_sym_ni, tcl_anon_sym_CARET, tcl_anon_sym_AMP_AMP,
      tcl_anon_sym_PIPE_PIPE, tcl_anon_sym_QMARK, tcl_anon_sym_COLON, tcl_anon_sym_RBRACK]"

definition tcl_small_run_3150 :: "nat list" where
  "tcl_small_run_3150 =
    [2, 276, 5, tcl_anon_sym_STAR, tcl_anon_sym_GT, tcl_anon_sym_LT, tcl_anon_sym_AMP,
      tcl_anon_sym_PIPE, 274, 23, tcl_anon_sym_RPAREN, tcl_anon_sym_RBRACE, tcl_anon_sym_DASH,
      tcl_anon_sym_PLUS, tcl_anon_sym_STAR_STAR, tcl_anon_sym_SLASH, tcl_anon_sym_PERCENT,
      tcl_anon_sym_LT_LT, tcl_anon_sym_GT_GT, tcl_anon_sym_GT_EQ, tcl_anon_sym_LT_EQ,
      tcl_anon_sym_EQ_EQ, tcl_anon_sym_BANG_EQ, tcl_anon_sym_eq, tcl_anon_sym_ne,
      tcl_anon_sym_in, tcl_anon_sym_ni, tcl_anon_sym_CARET, tcl_anon_sym_AMP_AMP,
      tcl_anon_sym_PIPE_PIPE, tcl_anon_sym_QMARK, tcl_anon_sym_COLON, tcl_anon_sym_RBRACK]"

definition tcl_small_run_3183 :: "nat list" where
  "tcl_small_run_3183 =
    [2, 280, 5, tcl_anon_sym_STAR, tcl_anon_sym_GT, tcl_anon_sym_LT, tcl_anon_sym_AMP,
      tcl_anon_sym_PIPE, 278, 23, tcl_anon_sym_RPAREN, tcl_anon_sym_RBRACE, tcl_anon_sym_DASH,
      tcl_anon_sym_PLUS, tcl_anon_sym_STAR_STAR, tcl_anon_sym_SLASH, tcl_anon_sym_PERCENT,
      tcl_anon_sym_LT_LT, tcl_anon_sym_GT_GT, tcl_anon_sym_GT_EQ, tcl_anon_sym_LT_EQ,
      tcl_anon_sym_EQ_EQ, tcl_anon_sym_BANG_EQ, tcl_anon_sym_eq, tcl_anon_sym_ne,
      tcl_anon_sym_in, tcl_anon_sym_ni, tcl_anon_sym_CARET, tcl_anon_sym_AMP_AMP,
      tcl_anon_sym_PIPE_PIPE, tcl_anon_sym_QMARK, tcl_anon_sym_COLON, tcl_anon_sym_RBRACK]"

definition tcl_small_run_3216 :: "nat list" where
  "tcl_small_run_3216 =
    [2, 284, 5, tcl_anon_sym_STAR, tcl_anon_sym_GT, tcl_anon_sym_LT, tcl_anon_sym_AMP,
      tcl_anon_sym_PIPE, 282, 23, tcl_anon_sym_RPAREN, tcl_anon_sym_RBRACE, tcl_anon_sym_DASH,
      tcl_anon_sym_PLUS, tcl_anon_sym_STAR_STAR, tcl_anon_sym_SLASH, tcl_anon_sym_PERCENT,
      tcl_anon_sym_LT_LT, tcl_anon_sym_GT_GT, tcl_anon_sym_GT_EQ, tcl_anon_sym_LT_EQ,
      tcl_anon_sym_EQ_EQ, tcl_anon_sym_BANG_EQ, tcl_anon_sym_eq, tcl_anon_sym_ne,
      tcl_anon_sym_in, tcl_anon_sym_ni, tcl_anon_sym_CARET, tcl_anon_sym_AMP_AMP,
      tcl_anon_sym_PIPE_PIPE, tcl_anon_sym_QMARK, tcl_anon_sym_COLON, tcl_anon_sym_RBRACK]"

definition tcl_small_run_3249 :: "nat list" where
  "tcl_small_run_3249 =
    [16, 290, 1, tcl_anon_sym_STAR_STAR, 294, 1, tcl_anon_sym_STAR, 308, 1, tcl_anon_sym_AMP,
      310, 1, tcl_anon_sym_CARET, 312, 1, tcl_anon_sym_PIPE, 314, 1, tcl_anon_sym_AMP_AMP, 316,
      1, tcl_anon_sym_PIPE_PIPE, 288, 2, tcl_anon_sym_DASH, tcl_anon_sym_PLUS, 292, 2,
      tcl_anon_sym_SLASH, tcl_anon_sym_PERCENT, 296, 2, tcl_anon_sym_LT_LT, tcl_anon_sym_GT_GT,
      298, 2, tcl_anon_sym_GT, tcl_anon_sym_LT, 300, 2, tcl_anon_sym_GT_EQ, tcl_anon_sym_LT_EQ,
      302, 2, tcl_anon_sym_EQ_EQ, tcl_anon_sym_BANG_EQ, 304, 2, tcl_anon_sym_eq, tcl_anon_sym_ne,
      306, 2, tcl_anon_sym_in, tcl_anon_sym_ni, 286, 4, tcl_anon_sym_RPAREN, tcl_anon_sym_RBRACE,
      tcl_anon_sym_QMARK, tcl_anon_sym_COLON]"

definition tcl_small_run_3309 :: "nat list" where
  "tcl_small_run_3309 =
    [2, 320, 5, tcl_anon_sym_STAR, tcl_anon_sym_GT, tcl_anon_sym_LT, tcl_anon_sym_AMP,
      tcl_anon_sym_PIPE, 318, 22, tcl_anon_sym_RPAREN, tcl_anon_sym_RBRACE, tcl_anon_sym_DASH,
      tcl_anon_sym_PLUS, tcl_anon_sym_STAR_STAR, tcl_anon_sym_SLASH, tcl_anon_sym_PERCENT,
      tcl_anon_sym_LT_LT, tcl_anon_sym_GT_GT, tcl_anon_sym_GT_EQ, tcl_anon_sym_LT_EQ,
      tcl_anon_sym_EQ_EQ, tcl_anon_sym_BANG_EQ, tcl_anon_sym_eq, tcl_anon_sym_ne,
      tcl_anon_sym_in, tcl_anon_sym_ni, tcl_anon_sym_CARET, tcl_anon_sym_AMP_AMP,
      tcl_anon_sym_PIPE_PIPE, tcl_anon_sym_QMARK, tcl_anon_sym_COLON]"

definition tcl_small_run_3341 :: "nat list" where
  "tcl_small_run_3341 =
    [3, 290, 1, tcl_anon_sym_STAR_STAR, 320, 5, tcl_anon_sym_STAR, tcl_anon_sym_GT,
      tcl_anon_sym_LT, tcl_anon_sym_AMP, tcl_anon_sym_PIPE, 318, 21, tcl_anon_sym_RPAREN,
      tcl_anon_sym_RBRACE, tcl_anon_sym_DASH, tcl_anon_sym_PLUS, tcl_anon_sym_SLASH,
      tcl_anon_sym_PERCENT, tcl_anon_sym_LT_LT, tcl_anon_sym_GT_GT, tcl_anon_sym_GT_EQ,
      tcl_anon_sym_LT_EQ, tcl_anon_sym_EQ_EQ, tcl_anon_sym_BANG_EQ, tcl_anon_sym_eq,
      tcl_anon_sym_ne, tcl_anon_sym_in, tcl_anon_sym_ni, tcl_anon_sym_CARET,
      tcl_anon_sym_AMP_AMP, tcl_anon_sym_PIPE_PIPE, tcl_anon_sym_QMARK, tcl_anon_sym_COLON]"

definition tcl_small_run_3375 :: "nat list" where
  "tcl_small_run_3375 =
    [6, 290, 1, tcl_anon_sym_STAR_STAR, 294, 1, tcl_anon_sym_STAR, 288, 2, tcl_anon_sym_DASH,
      tcl_anon_sym_PLUS, 292, 2, tcl_anon_sym_SLASH, tcl_anon_sym_PERCENT, 320, 4,
      tcl_anon_sym_GT, tcl_anon_sym_LT, tcl_anon_sym_AMP, tcl_anon_sym_PIPE, 318, 17,
      tcl_anon_sym_RPAREN, tcl_anon_sym_RBRACE, tcl_anon_sym_LT_LT, tcl_anon_sym_GT_GT,
      tcl_anon_sym_GT_EQ, tcl_anon_sym_LT_EQ, tcl_anon_sym_EQ_EQ, tcl_anon_sym_BANG_EQ,
      tcl_anon_sym_eq, tcl_anon_sym_ne, tcl_anon_sym_in, tcl_anon_sym_ni, tcl_anon_sym_CARET,
      tcl_anon_sym_AMP_AMP, tcl_anon_sym_PIPE_PIPE, tcl_anon_sym_QMARK, tcl_anon_sym_COLON]"

definition tcl_small_run_3415 :: "nat list" where
  "tcl_small_run_3415 =
    [7, 290, 1, tcl_anon_sym_STAR_STAR, 294, 1, tcl_anon_sym_STAR, 288, 2, tcl_anon_sym_DASH,
      tcl_anon_sym_PLUS, 292, 2, tcl_anon_sym_SLASH, tcl_anon_sym_PERCENT, 296, 2,
      tcl_anon_sym_LT_LT, tcl_anon_sym_GT_GT, 320, 4, tcl_anon_sym_GT, tcl_anon_sym_LT,
      tcl_anon_sym_AMP, tcl_anon_sym_PIPE, 318, 15, tcl_anon_sym_RPAREN, tcl_anon_sym_RBRACE,
      tcl_anon_sym_GT_EQ, tcl_anon_sym_LT_EQ, tcl_anon_sym_EQ_EQ, tcl_anon_sym_BANG_EQ,
      tcl_anon_sym_eq, tcl_anon_sym_ne, tcl_anon_sym_in, tcl_anon_sym_ni, tcl_anon_sym_CARET,
      tcl_anon_sym_AMP_AMP, tcl_anon_sym_PIPE_PIPE, tcl_anon_sym_QMARK, tcl_anon_sym_COLON]"

definition tcl_small_run_3457 :: "nat list" where
  "tcl_small_run_3457 =
    [9, 290, 1, tcl_anon_sym_STAR_STAR, 294, 1, tcl_anon_sym_STAR, 288, 2, tcl_anon_sym_DASH,
      tcl_anon_sym_PLUS, 292, 2, tcl_anon_sym_SLASH, tcl_anon_sym_PERCENT, 296, 2,
      tcl_anon_sym_LT_LT, tcl_anon_sym_GT_GT, 298, 2, tcl_anon_sym_GT, tcl_anon_sym_LT, 300, 2,
      tcl_anon_sym_GT_EQ, tcl_anon_sym_LT_EQ, 320, 2, tcl_anon_sym_AMP, tcl_anon_sym_PIPE, 318,
      13, tcl_anon_sym_RPAREN, tcl_anon_sym_RBRACE, tcl_anon_sym_EQ_EQ, tcl_anon_sym_BANG_EQ,
      tcl_anon_sym_eq, tcl_anon_sym_ne, tcl_anon_sym_in, tcl_anon_sym_ni, tcl_anon_sym_CARET,
      tcl_anon_sym_AMP_AMP, tcl_anon_sym_PIPE_PIPE, tcl_anon_sym_QMARK, tcl_anon_sym_COLON]"

definition tcl_small_run_3503 :: "nat list" where
  "tcl_small_run_3503 =
    [10, 290, 1, tcl_anon_sym_STAR_STAR, 294, 1, tcl_anon_sym_STAR, 288, 2, tcl_anon_sym_DASH,
      tcl_anon_sym_PLUS, 292, 2, tcl_anon_sym_SLASH, tcl_anon_sym_PERCENT, 296, 2,
      tcl_anon_sym_LT_LT, tcl_anon_sym_GT_GT, 298, 2, tcl_anon_sym_GT, tcl_anon_sym_LT, 300, 2,
      tcl_anon_sym_GT_EQ, tcl_anon_sym_LT_EQ, 302, 2, tcl_anon_sym_EQ_EQ, tcl_anon_sym_BANG_EQ,
      320, 2, tcl_anon_sym_AMP, tcl_anon_sym_PIPE, 318, 11, tcl_anon_sym_RPAREN,
      tcl_anon_sym_RBRACE, tcl_anon_sym_eq, tcl_anon_sym_ne, tcl_anon_sym_in, tcl_anon_sym_ni,
      tcl_anon_sym_CARET, tcl_anon_sym_AMP_AMP, tcl_anon_sym_PIPE_PIPE, tcl_anon_sym_QMARK,
      tcl_anon_sym_COLON]"

definition tcl_small_run_3551 :: "nat list" where
  "tcl_small_run_3551 =
    [11, 290, 1, tcl_anon_sym_STAR_STAR, 294, 1, tcl_anon_sym_STAR, 288, 2, tcl_anon_sym_DASH,
      tcl_anon_sym_PLUS, 292, 2, tcl_anon_sym_SLASH, tcl_anon_sym_PERCENT, 296, 2,
      tcl_anon_sym_LT_LT, tcl_anon_sym_GT_GT, 298, 2, tcl_anon_sym_GT, tcl_anon_sym_LT, 300, 2,
      tcl_anon_sym_GT_EQ, tcl_anon_sym_LT_EQ, 302, 2, tcl_anon_sym_EQ_EQ, tcl_anon_sym_BANG_EQ,
      304, 2, tcl_anon_sym_eq, tcl_anon_sym_ne, 320, 2, tcl_anon_sym_AMP, tcl_anon_sym_PIPE, 318,
      9, tcl_anon_sym_RPAREN, tcl_anon_sym_RBRACE, tcl_anon_sym_in, tcl_anon_sym_ni,
      tcl_anon_sym_CARET, tcl_anon_sym_AMP_AMP, tcl_anon_sym_PIPE_PIPE, tcl_anon_sym_QMARK,
      tcl_anon_sym_COLON]"

definition tcl_small_run_3601 :: "nat list" where
  "tcl_small_run_3601 =
    [12, 290, 1, tcl_anon_sym_STAR_STAR, 294, 1, tcl_anon_sym_STAR, 288, 2, tcl_anon_sym_DASH,
      tcl_anon_sym_PLUS, 292, 2, tcl_anon_sym_SLASH, tcl_anon_sym_PERCENT, 296, 2,
      tcl_anon_sym_LT_LT, tcl_anon_sym_GT_GT, 298, 2, tcl_anon_sym_GT, tcl_anon_sym_LT, 300, 2,
      tcl_anon_sym_GT_EQ, tcl_anon_sym_LT_EQ, 302, 2, tcl_anon_sym_EQ_EQ, tcl_anon_sym_BANG_EQ,
      304, 2, tcl_anon_sym_eq, tcl_anon_sym_ne, 306, 2, tcl_anon_sym_in, tcl_anon_sym_ni, 320, 2,
      tcl_anon_sym_AMP, tcl_anon_sym_PIPE, 318, 7, tcl_anon_sym_RPAREN, tcl_anon_sym_RBRACE,
      tcl_anon_sym_CARET, tcl_anon_sym_AMP_AMP, tcl_anon_sym_PIPE_PIPE, tcl_anon_sym_QMARK,
      tcl_anon_sym_COLON]"

definition tcl_small_run_3653 :: "nat list" where
  "tcl_small_run_3653 =
    [13, 290, 1, tcl_anon_sym_STAR_STAR, 294, 1, tcl_anon_sym_STAR, 308, 1, tcl_anon_sym_AMP,
      320, 1, tcl_anon_sym_PIPE, 288, 2, tcl_anon_sym_DASH, tcl_anon_sym_PLUS, 292, 2,
      tcl_anon_sym_SLASH, tcl_anon_sym_PERCENT, 296, 2, tcl_anon_sym_LT_LT, tcl_anon_sym_GT_GT,
      298, 2, tcl_anon_sym_GT, tcl_anon_sym_LT, 300, 2, tcl_anon_sym_GT_EQ, tcl_anon_sym_LT_EQ,
      302, 2, tcl_anon_sym_EQ_EQ, tcl_anon_sym_BANG_EQ, 304, 2, tcl_anon_sym_eq, tcl_anon_sym_ne,
      306, 2, tcl_anon_sym_in, tcl_anon_sym_ni, 318, 7, tcl_anon_sym_RPAREN, tcl_anon_sym_RBRACE,
      tcl_anon_sym_CARET, tcl_anon_sym_AMP_AMP, tcl_anon_sym_PIPE_PIPE, tcl_anon_sym_QMARK,
      tcl_anon_sym_COLON]"

definition tcl_small_run_3707 :: "nat list" where
  "tcl_small_run_3707 =
    [14, 290, 1, tcl_anon_sym_STAR_STAR, 294, 1, tcl_anon_sym_STAR, 308, 1, tcl_anon_sym_AMP,
      310, 1, tcl_anon_sym_CARET, 320, 1, tcl_anon_sym_PIPE, 288, 2, tcl_anon_sym_DASH,
      tcl_anon_sym_PLUS, 292, 2, tcl_anon_sym_SLASH, tcl_anon_sym_PERCENT, 296, 2,
      tcl_anon_sym_LT_LT, tcl_anon_sym_GT_GT, 298, 2, tcl_anon_sym_GT, tcl_anon_sym_LT, 300, 2,
      tcl_anon_sym_GT_EQ, tcl_anon_sym_LT_EQ, 302, 2, tcl_anon_sym_EQ_EQ, tcl_anon_sym_BANG_EQ,
      304, 2, tcl_anon_sym_eq, tcl_anon_sym_ne, 306, 2, tcl_anon_sym_in, tcl_anon_sym_ni, 318, 6,
      tcl_anon_sym_RPAREN, tcl_anon_sym_RBRACE, tcl_anon_sym_AMP_AMP, tcl_anon_sym_PIPE_PIPE,
      tcl_anon_sym_QMARK, tcl_anon_sym_COLON]"

definition tcl_small_run_3763 :: "nat list" where
  "tcl_small_run_3763 =
    [14, 290, 1, tcl_anon_sym_STAR_STAR, 294, 1, tcl_anon_sym_STAR, 308, 1, tcl_anon_sym_AMP,
      310, 1, tcl_anon_sym_CARET, 312, 1, tcl_anon_sym_PIPE, 288, 2, tcl_anon_sym_DASH,
      tcl_anon_sym_PLUS, 292, 2, tcl_anon_sym_SLASH, tcl_anon_sym_PERCENT, 296, 2,
      tcl_anon_sym_LT_LT, tcl_anon_sym_GT_GT, 298, 2, tcl_anon_sym_GT, tcl_anon_sym_LT, 300, 2,
      tcl_anon_sym_GT_EQ, tcl_anon_sym_LT_EQ, 302, 2, tcl_anon_sym_EQ_EQ, tcl_anon_sym_BANG_EQ,
      304, 2, tcl_anon_sym_eq, tcl_anon_sym_ne, 306, 2, tcl_anon_sym_in, tcl_anon_sym_ni, 318, 6,
      tcl_anon_sym_RPAREN, tcl_anon_sym_RBRACE, tcl_anon_sym_AMP_AMP, tcl_anon_sym_PIPE_PIPE,
      tcl_anon_sym_QMARK, tcl_anon_sym_COLON]"

definition tcl_small_run_3819 :: "nat list" where
  "tcl_small_run_3819 =
    [15, 290, 1, tcl_anon_sym_STAR_STAR, 294, 1, tcl_anon_sym_STAR, 308, 1, tcl_anon_sym_AMP,
      310, 1, tcl_anon_sym_CARET, 312, 1, tcl_anon_sym_PIPE, 314, 1, tcl_anon_sym_AMP_AMP, 288,
      2, tcl_anon_sym_DASH, tcl_anon_sym_PLUS, 292, 2, tcl_anon_sym_SLASH, tcl_anon_sym_PERCENT,
      296, 2, tcl_anon_sym_LT_LT, tcl_anon_sym_GT_GT, 298, 2, tcl_anon_sym_GT, tcl_anon_sym_LT,
      300, 2, tcl_anon_sym_GT_EQ, tcl_anon_sym_LT_EQ, 302, 2, tcl_anon_sym_EQ_EQ,
      tcl_anon_sym_BANG_EQ, 304, 2, tcl_anon_sym_eq, tcl_anon_sym_ne, 306, 2, tcl_anon_sym_in,
      tcl_anon_sym_ni, 318, 5, tcl_anon_sym_RPAREN, tcl_anon_sym_RBRACE, tcl_anon_sym_PIPE_PIPE,
      tcl_anon_sym_QMARK, tcl_anon_sym_COLON]"

definition tcl_small_run_3877 :: "nat list" where
  "tcl_small_run_3877 =
    [2, 324, 5, tcl_anon_sym_STAR, tcl_anon_sym_GT, tcl_anon_sym_LT, tcl_anon_sym_AMP,
      tcl_anon_sym_PIPE, 322, 22, tcl_anon_sym_RPAREN, tcl_anon_sym_RBRACE, tcl_anon_sym_DASH,
      tcl_anon_sym_PLUS, tcl_anon_sym_STAR_STAR, tcl_anon_sym_SLASH, tcl_anon_sym_PERCENT,
      tcl_anon_sym_LT_LT, tcl_anon_sym_GT_GT, tcl_anon_sym_GT_EQ, tcl_anon_sym_LT_EQ,
      tcl_anon_sym_EQ_EQ, tcl_anon_sym_BANG_EQ, tcl_anon_sym_eq, tcl_anon_sym_ne,
      tcl_anon_sym_in, tcl_anon_sym_ni, tcl_anon_sym_CARET, tcl_anon_sym_AMP_AMP,
      tcl_anon_sym_PIPE_PIPE, tcl_anon_sym_QMARK, tcl_anon_sym_COLON]"

definition tcl_small_run_3909 :: "nat list" where
  "tcl_small_run_3909 =
    [2, 328, 5, tcl_anon_sym_STAR, tcl_anon_sym_GT, tcl_anon_sym_LT, tcl_anon_sym_AMP,
      tcl_anon_sym_PIPE, 326, 22, tcl_anon_sym_RPAREN, tcl_anon_sym_RBRACE, tcl_anon_sym_DASH,
      tcl_anon_sym_PLUS, tcl_anon_sym_STAR_STAR, tcl_anon_sym_SLASH, tcl_anon_sym_PERCENT,
      tcl_anon_sym_LT_LT, tcl_anon_sym_GT_GT, tcl_anon_sym_GT_EQ, tcl_anon_sym_LT_EQ,
      tcl_anon_sym_EQ_EQ, tcl_anon_sym_BANG_EQ, tcl_anon_sym_eq, tcl_anon_sym_ne,
      tcl_anon_sym_in, tcl_anon_sym_ni, tcl_anon_sym_CARET, tcl_anon_sym_AMP_AMP,
      tcl_anon_sym_PIPE_PIPE, tcl_anon_sym_QMARK, tcl_anon_sym_COLON]"

definition tcl_small_run_3941 :: "nat list" where
  "tcl_small_run_3941 =
    [2, 332, 5, tcl_anon_sym_STAR, tcl_anon_sym_GT, tcl_anon_sym_LT, tcl_anon_sym_AMP,
      tcl_anon_sym_PIPE, 330, 22, tcl_anon_sym_RPAREN, tcl_anon_sym_RBRACE, tcl_anon_sym_DASH,
      tcl_anon_sym_PLUS, tcl_anon_sym_STAR_STAR, tcl_anon_sym_SLASH, tcl_anon_sym_PERCENT,
      tcl_anon_sym_LT_LT, tcl_anon_sym_GT_GT, tcl_anon_sym_GT_EQ, tcl_anon_sym_LT_EQ,
      tcl_anon_sym_EQ_EQ, tcl_anon_sym_BANG_EQ, tcl_anon_sym_eq, tcl_anon_sym_ne,
      tcl_anon_sym_in, tcl_anon_sym_ni, tcl_anon_sym_CARET, tcl_anon_sym_AMP_AMP,
      tcl_anon_sym_PIPE_PIPE, tcl_anon_sym_QMARK, tcl_anon_sym_COLON]"

definition tcl_small_run_3973 :: "nat list" where
  "tcl_small_run_3973 =
    [2, 336, 5, tcl_anon_sym_STAR, tcl_anon_sym_GT, tcl_anon_sym_LT, tcl_anon_sym_AMP,
      tcl_anon_sym_PIPE, 334, 22, tcl_anon_sym_RPAREN, tcl_anon_sym_RBRACE, tcl_anon_sym_DASH,
      tcl_anon_sym_PLUS, tcl_anon_sym_STAR_STAR, tcl_anon_sym_SLASH, tcl_anon_sym_PERCENT,
      tcl_anon_sym_LT_LT, tcl_anon_sym_GT_GT, tcl_anon_sym_GT_EQ, tcl_anon_sym_LT_EQ,
      tcl_anon_sym_EQ_EQ, tcl_anon_sym_BANG_EQ, tcl_anon_sym_eq, tcl_anon_sym_ne,
      tcl_anon_sym_in, tcl_anon_sym_ni, tcl_anon_sym_CARET, tcl_anon_sym_AMP_AMP,
      tcl_anon_sym_PIPE_PIPE, tcl_anon_sym_QMARK, tcl_anon_sym_COLON]"

definition tcl_small_run_4005 :: "nat list" where
  "tcl_small_run_4005 =
    [5, 290, 1, tcl_anon_sym_STAR_STAR, 294, 1, tcl_anon_sym_STAR, 292, 2, tcl_anon_sym_SLASH,
      tcl_anon_sym_PERCENT, 320, 4, tcl_anon_sym_GT, tcl_anon_sym_LT, tcl_anon_sym_AMP,
      tcl_anon_sym_PIPE, 318, 19, tcl_anon_sym_RPAREN, tcl_anon_sym_RBRACE, tcl_anon_sym_DASH,
      tcl_anon_sym_PLUS, tcl_anon_sym_LT_LT, tcl_anon_sym_GT_GT, tcl_anon_sym_GT_EQ,
      tcl_anon_sym_LT_EQ, tcl_anon_sym_EQ_EQ, tcl_anon_sym_BANG_EQ, tcl_anon_sym_eq,
      tcl_anon_sym_ne, tcl_anon_sym_in, tcl_anon_sym_ni, tcl_anon_sym_CARET,
      tcl_anon_sym_AMP_AMP, tcl_anon_sym_PIPE_PIPE, tcl_anon_sym_QMARK, tcl_anon_sym_COLON]"

definition tcl_small_run_4043 :: "nat list" where
  "tcl_small_run_4043 =
    [17, 290, 1, tcl_anon_sym_STAR_STAR, 294, 1, tcl_anon_sym_STAR, 308, 1, tcl_anon_sym_AMP,
      310, 1, tcl_anon_sym_CARET, 312, 1, tcl_anon_sym_PIPE, 314, 1, tcl_anon_sym_AMP_AMP, 316,
      1, tcl_anon_sym_PIPE_PIPE, 338, 1, tcl_anon_sym_QMARK, 340, 1, tcl_anon_sym_COLON, 288, 2,
      tcl_anon_sym_DASH, tcl_anon_sym_PLUS, 292, 2, tcl_anon_sym_SLASH, tcl_anon_sym_PERCENT,
      296, 2, tcl_anon_sym_LT_LT, tcl_anon_sym_GT_GT, 298, 2, tcl_anon_sym_GT, tcl_anon_sym_LT,
      300, 2, tcl_anon_sym_GT_EQ, tcl_anon_sym_LT_EQ, 302, 2, tcl_anon_sym_EQ_EQ,
      tcl_anon_sym_BANG_EQ, 304, 2, tcl_anon_sym_eq, tcl_anon_sym_ne, 306, 2, tcl_anon_sym_in,
      tcl_anon_sym_ni]"

definition tcl_small_run_4103 :: "nat list" where
  "tcl_small_run_4103 =
    [17, 290, 1, tcl_anon_sym_STAR_STAR, 294, 1, tcl_anon_sym_STAR, 308, 1, tcl_anon_sym_AMP,
      310, 1, tcl_anon_sym_CARET, 312, 1, tcl_anon_sym_PIPE, 314, 1, tcl_anon_sym_AMP_AMP, 316,
      1, tcl_anon_sym_PIPE_PIPE, 338, 1, tcl_anon_sym_QMARK, 342, 1, tcl_anon_sym_RPAREN, 288, 2,
      tcl_anon_sym_DASH, tcl_anon_sym_PLUS, 292, 2, tcl_anon_sym_SLASH, tcl_anon_sym_PERCENT,
      296, 2, tcl_anon_sym_LT_LT, tcl_anon_sym_GT_GT, 298, 2, tcl_anon_sym_GT, tcl_anon_sym_LT,
      300, 2, tcl_anon_sym_GT_EQ, tcl_anon_sym_LT_EQ, 302, 2, tcl_anon_sym_EQ_EQ,
      tcl_anon_sym_BANG_EQ, 304, 2, tcl_anon_sym_eq, tcl_anon_sym_ne, 306, 2, tcl_anon_sym_in,
      tcl_anon_sym_ni]"

definition tcl_small_run_4163 :: "nat list" where
  "tcl_small_run_4163 =
    [17, 290, 1, tcl_anon_sym_STAR_STAR, 294, 1, tcl_anon_sym_STAR, 308, 1, tcl_anon_sym_AMP,
      310, 1, tcl_anon_sym_CARET, 312, 1, tcl_anon_sym_PIPE, 314, 1, tcl_anon_sym_AMP_AMP, 316,
      1, tcl_anon_sym_PIPE_PIPE, 338, 1, tcl_anon_sym_QMARK, 344, 1, tcl_anon_sym_RPAREN, 288, 2,
      tcl_anon_sym_DASH, tcl_anon_sym_PLUS, 292, 2, tcl_anon_sym_SLASH, tcl_anon_sym_PERCENT,
      296, 2, tcl_anon_sym_LT_LT, tcl_anon_sym_GT_GT, 298, 2, tcl_anon_sym_GT, tcl_anon_sym_LT,
      300, 2, tcl_anon_sym_GT_EQ, tcl_anon_sym_LT_EQ, 302, 2, tcl_anon_sym_EQ_EQ,
      tcl_anon_sym_BANG_EQ, 304, 2, tcl_anon_sym_eq, tcl_anon_sym_ne, 306, 2, tcl_anon_sym_in,
      tcl_anon_sym_ni]"

definition tcl_small_run_4223 :: "nat list" where
  "tcl_small_run_4223 =
    [17, 290, 1, tcl_anon_sym_STAR_STAR, 294, 1, tcl_anon_sym_STAR, 308, 1, tcl_anon_sym_AMP,
      310, 1, tcl_anon_sym_CARET, 312, 1, tcl_anon_sym_PIPE, 314, 1, tcl_anon_sym_AMP_AMP, 316,
      1, tcl_anon_sym_PIPE_PIPE, 338, 1, tcl_anon_sym_QMARK, 346, 1, tcl_anon_sym_RBRACE, 288, 2,
      tcl_anon_sym_DASH, tcl_anon_sym_PLUS, 292, 2, tcl_anon_sym_SLASH, tcl_anon_sym_PERCENT,
      296, 2, tcl_anon_sym_LT_LT, tcl_anon_sym_GT_GT, 298, 2, tcl_anon_sym_GT, tcl_anon_sym_LT,
      300, 2, tcl_anon_sym_GT_EQ, tcl_anon_sym_LT_EQ, 302, 2, tcl_anon_sym_EQ_EQ,
      tcl_anon_sym_BANG_EQ, 304, 2, tcl_anon_sym_eq, tcl_anon_sym_ne, 306, 2, tcl_anon_sym_in,
      tcl_anon_sym_ni]"

definition tcl_small_run_4283 :: "nat list" where
  "tcl_small_run_4283 =
    [17, 290, 1, tcl_anon_sym_STAR_STAR, 294, 1, tcl_anon_sym_STAR, 308, 1, tcl_anon_sym_AMP,
      310, 1, tcl_anon_sym_CARET, 312, 1, tcl_anon_sym_PIPE, 314, 1, tcl_anon_sym_AMP_AMP, 316,
      1, tcl_anon_sym_PIPE_PIPE, 338, 1, tcl_anon_sym_QMARK, 348, 1, tcl_anon_sym_RPAREN, 288, 2,
      tcl_anon_sym_DASH, tcl_anon_sym_PLUS, 292, 2, tcl_anon_sym_SLASH, tcl_anon_sym_PERCENT,
      296, 2, tcl_anon_sym_LT_LT, tcl_anon_sym_GT_GT, 298, 2, tcl_anon_sym_GT, tcl_anon_sym_LT,
      300, 2, tcl_anon_sym_GT_EQ, tcl_anon_sym_LT_EQ, 302, 2, tcl_anon_sym_EQ_EQ,
      tcl_anon_sym_BANG_EQ, 304, 2, tcl_anon_sym_eq, tcl_anon_sym_ne, 306, 2, tcl_anon_sym_in,
      tcl_anon_sym_ni]"

definition tcl_small_run_4343 :: "nat list" where
  "tcl_small_run_4343 =
    [17, 290, 1, tcl_anon_sym_STAR_STAR, 294, 1, tcl_anon_sym_STAR, 308, 1, tcl_anon_sym_AMP,
      310, 1, tcl_anon_sym_CARET, 312, 1, tcl_anon_sym_PIPE, 314, 1, tcl_anon_sym_AMP_AMP, 316,
      1, tcl_anon_sym_PIPE_PIPE, 338, 1, tcl_anon_sym_QMARK, 350, 1, tcl_anon_sym_RBRACE, 288, 2,
      tcl_anon_sym_DASH, tcl_anon_sym_PLUS, 292, 2, tcl_anon_sym_SLASH, tcl_anon_sym_PERCENT,
      296, 2, tcl_anon_sym_LT_LT, tcl_anon_sym_GT_GT, 298, 2, tcl_anon_sym_GT, tcl_anon_sym_LT,
      300, 2, tcl_anon_sym_GT_EQ, tcl_anon_sym_LT_EQ, 302, 2, tcl_anon_sym_EQ_EQ,
      tcl_anon_sym_BANG_EQ, 304, 2, tcl_anon_sym_eq, tcl_anon_sym_ne, 306, 2, tcl_anon_sym_in,
      tcl_anon_sym_ni]"

definition tcl_small_run_4403 :: "nat list" where
  "tcl_small_run_4403 =
    [17, 290, 1, tcl_anon_sym_STAR_STAR, 294, 1, tcl_anon_sym_STAR, 308, 1, tcl_anon_sym_AMP,
      310, 1, tcl_anon_sym_CARET, 312, 1, tcl_anon_sym_PIPE, 314, 1, tcl_anon_sym_AMP_AMP, 316,
      1, tcl_anon_sym_PIPE_PIPE, 338, 1, tcl_anon_sym_QMARK, 352, 1, tcl_anon_sym_RPAREN, 288, 2,
      tcl_anon_sym_DASH, tcl_anon_sym_PLUS, 292, 2, tcl_anon_sym_SLASH, tcl_anon_sym_PERCENT,
      296, 2, tcl_anon_sym_LT_LT, tcl_anon_sym_GT_GT, 298, 2, tcl_anon_sym_GT, tcl_anon_sym_LT,
      300, 2, tcl_anon_sym_GT_EQ, tcl_anon_sym_LT_EQ, 302, 2, tcl_anon_sym_EQ_EQ,
      tcl_anon_sym_BANG_EQ, 304, 2, tcl_anon_sym_eq, tcl_anon_sym_ne, 306, 2, tcl_anon_sym_in,
      tcl_anon_sym_ni]"

definition tcl_small_run_4463 :: "nat list" where
  "tcl_small_run_4463 =
    [3, 70, 1, tcl_aux_sym_braced_word_repeat1, 356, 2, tcl_anon_sym_LF, tcl_anon_sym_SEMI, 354,
      22, tcl_sym_comment, tcl_anon_sym_regexp, tcl_anon_sym_while, tcl_anon_sym_expr,
      tcl_anon_sym_foreach, tcl_anon_sym_global, tcl_anon_sym_namespace, tcl_anon_sym_try,
      tcl_sym_unpack, tcl_anon_sym_DOLLAR, tcl_anon_sym_LBRACE, tcl_anon_sym_RBRACE,
      tcl_anon_sym_set, tcl_anon_sym_proc, tcl_anon_sym_elseif, tcl_anon_sym_else,
      tcl_anon_sym_if, tcl_anon_sym_catch, tcl_anon_sym_DQUOTE, tcl_sym_escaped_character,
      tcl_anon_sym_LBRACK, tcl_sym_simple_word]"

definition tcl_small_run_4495 :: "nat list" where
  "tcl_small_run_4495 =
    [17, 290, 1, tcl_anon_sym_STAR_STAR, 294, 1, tcl_anon_sym_STAR, 308, 1, tcl_anon_sym_AMP,
      310, 1, tcl_anon_sym_CARET, 312, 1, tcl_anon_sym_PIPE, 314, 1, tcl_anon_sym_AMP_AMP, 316,
      1, tcl_anon_sym_PIPE_PIPE, 338, 1, tcl_anon_sym_QMARK, 359, 1, tcl_anon_sym_RBRACE, 288, 2,
      tcl_anon_sym_DASH, tcl_anon_sym_PLUS, 292, 2, tcl_anon_sym_SLASH, tcl_anon_sym_PERCENT,
      296, 2, tcl_anon_sym_LT_LT, tcl_anon_sym_GT_GT, 298, 2, tcl_anon_sym_GT, tcl_anon_sym_LT,
      300, 2, tcl_anon_sym_GT_EQ, tcl_anon_sym_LT_EQ, 302, 2, tcl_anon_sym_EQ_EQ,
      tcl_anon_sym_BANG_EQ, 304, 2, tcl_anon_sym_eq, tcl_anon_sym_ne, 306, 2, tcl_anon_sym_in,
      tcl_anon_sym_ni]"

definition tcl_small_run_4555 :: "nat list" where
  "tcl_small_run_4555 =
    [2, 49, 1, ts_builtin_sym_end, 361, 23, tcl_anon_sym_LF, tcl_anon_sym_SEMI, tcl_sym_comment,
      tcl_anon_sym_regexp, tcl_anon_sym_while, tcl_anon_sym_expr, tcl_anon_sym_foreach,
      tcl_anon_sym_global, tcl_anon_sym_namespace, tcl_anon_sym_try, tcl_sym_unpack,
      tcl_anon_sym_DOLLAR, tcl_anon_sym_LBRACE, tcl_anon_sym_set, tcl_anon_sym_proc,
      tcl_anon_sym_elseif, tcl_anon_sym_else, tcl_anon_sym_if, tcl_anon_sym_catch,
      tcl_anon_sym_DQUOTE, tcl_sym_escaped_character, tcl_anon_sym_LBRACK, tcl_sym_simple_word]"

definition tcl_small_run_4584 :: "nat list" where
  "tcl_small_run_4584 =
    [10, 363, 1, tcl_sym_simple_word, 365, 1, tcl_anon_sym_DOLLAR, 367, 1, tcl_anon_sym_LBRACE,
      371, 1, tcl_anon_sym_LPAREN2, 375, 1, tcl_anon_sym_DQUOTE, 377, 1,
      tcl_sym_escaped_character, 379, 1, tcl_anon_sym_LBRACK, 369, 2, tcl_sym_number,
      tcl_sym__boolean, 373, 4, tcl_anon_sym_DASH, tcl_anon_sym_PLUS, tcl_anon_sym_TILDE,
      tcl_anon_sym_BANG, 67, 9, tcl_sym_variable_substitution, tcl_sym_braced_word_simple,
      tcl_sym__expr_atom_no_brace, tcl_sym__expr, tcl_sym_unary_expr, tcl_sym_binop_expr,
      tcl_sym_ternary_expr, tcl_sym_quoted_word, tcl_sym_command_substitution]"

definition tcl_small_run_4627 :: "nat list" where
  "tcl_small_run_4627 =
    [10, 363, 1, tcl_sym_simple_word, 365, 1, tcl_anon_sym_DOLLAR, 367, 1, tcl_anon_sym_LBRACE,
      371, 1, tcl_anon_sym_LPAREN2, 375, 1, tcl_anon_sym_DQUOTE, 379, 1, tcl_anon_sym_LBRACK,
      383, 1, tcl_sym_escaped_character, 381, 2, tcl_sym_number, tcl_sym__boolean, 373, 4,
      tcl_anon_sym_DASH, tcl_anon_sym_PLUS, tcl_anon_sym_TILDE, tcl_anon_sym_BANG, 64, 9,
      tcl_sym_variable_substitution, tcl_sym_braced_word_simple, tcl_sym__expr_atom_no_brace,
      tcl_sym__expr, tcl_sym_unary_expr, tcl_sym_binop_expr, tcl_sym_ternary_expr,
      tcl_sym_quoted_word, tcl_sym_command_substitution]"

definition tcl_small_run_4670 :: "nat list" where
  "tcl_small_run_4670 =
    [10, 363, 1, tcl_sym_simple_word, 365, 1, tcl_anon_sym_DOLLAR, 367, 1, tcl_anon_sym_LBRACE,
      371, 1, tcl_anon_sym_LPAREN2, 375, 1, tcl_anon_sym_DQUOTE, 379, 1, tcl_anon_sym_LBRACK,
      387, 1, tcl_sym_escaped_character, 385, 2, tcl_sym_number, tcl_sym__boolean, 373, 4,
      tcl_anon_sym_DASH, tcl_anon_sym_PLUS, tcl_anon_sym_TILDE, tcl_anon_sym_BANG, 60, 9,
      tcl_sym_variable_substitution, tcl_sym_braced_word_simple, tcl_sym__expr_atom_no_brace,
      tcl_sym__expr, tcl_sym_unary_expr, tcl_sym_binop_expr, tcl_sym_ternary_expr,
      tcl_sym_quoted_word, tcl_sym_command_substitution]"

definition tcl_small_run_4713 :: "nat list" where
  "tcl_small_run_4713 =
    [10, 363, 1, tcl_sym_simple_word, 365, 1, tcl_anon_sym_DOLLAR, 367, 1, tcl_anon_sym_LBRACE,
      371, 1, tcl_anon_sym_LPAREN2, 375, 1, tcl_anon_sym_DQUOTE, 379, 1, tcl_anon_sym_LBRACK,
      391, 1, tcl_sym_escaped_character, 389, 2, tcl_sym_number, tcl_sym__boolean, 373, 4,
      tcl_anon_sym_DASH, tcl_anon_sym_PLUS, tcl_anon_sym_TILDE, tcl_anon_sym_BANG, 62, 9,
      tcl_sym_variable_substitution, tcl_sym_braced_word_simple, tcl_sym__expr_atom_no_brace,
      tcl_sym__expr, tcl_sym_unary_expr, tcl_sym_binop_expr, tcl_sym_ternary_expr,
      tcl_sym_quoted_word, tcl_sym_command_substitution]"

definition tcl_small_run_4756 :: "nat list" where
  "tcl_small_run_4756 =
    [10, 363, 1, tcl_sym_simple_word, 365, 1, tcl_anon_sym_DOLLAR, 367, 1, tcl_anon_sym_LBRACE,
      371, 1, tcl_anon_sym_LPAREN2, 375, 1, tcl_anon_sym_DQUOTE, 379, 1, tcl_anon_sym_LBRACK,
      395, 1, tcl_sym_escaped_character, 393, 2, tcl_sym_number, tcl_sym__boolean, 373, 4,
      tcl_anon_sym_DASH, tcl_anon_sym_PLUS, tcl_anon_sym_TILDE, tcl_anon_sym_BANG, 69, 9,
      tcl_sym_variable_substitution, tcl_sym_braced_word_simple, tcl_sym__expr_atom_no_brace,
      tcl_sym__expr, tcl_sym_unary_expr, tcl_sym_binop_expr, tcl_sym_ternary_expr,
      tcl_sym_quoted_word, tcl_sym_command_substitution]"

definition tcl_small_run_4799 :: "nat list" where
  "tcl_small_run_4799 =
    [10, 363, 1, tcl_sym_simple_word, 365, 1, tcl_anon_sym_DOLLAR, 367, 1, tcl_anon_sym_LBRACE,
      371, 1, tcl_anon_sym_LPAREN2, 375, 1, tcl_anon_sym_DQUOTE, 379, 1, tcl_anon_sym_LBRACK,
      399, 1, tcl_sym_escaped_character, 397, 2, tcl_sym_number, tcl_sym__boolean, 373, 4,
      tcl_anon_sym_DASH, tcl_anon_sym_PLUS, tcl_anon_sym_TILDE, tcl_anon_sym_BANG, 68, 9,
      tcl_sym_variable_substitution, tcl_sym_braced_word_simple, tcl_sym__expr_atom_no_brace,
      tcl_sym__expr, tcl_sym_unary_expr, tcl_sym_binop_expr, tcl_sym_ternary_expr,
      tcl_sym_quoted_word, tcl_sym_command_substitution]"

definition tcl_small_run_4842 :: "nat list" where
  "tcl_small_run_4842 =
    [10, 363, 1, tcl_sym_simple_word, 365, 1, tcl_anon_sym_DOLLAR, 367, 1, tcl_anon_sym_LBRACE,
      371, 1, tcl_anon_sym_LPAREN2, 375, 1, tcl_anon_sym_DQUOTE, 379, 1, tcl_anon_sym_LBRACK,
      403, 1, tcl_sym_escaped_character, 401, 2, tcl_sym_number, tcl_sym__boolean, 373, 4,
      tcl_anon_sym_DASH, tcl_anon_sym_PLUS, tcl_anon_sym_TILDE, tcl_anon_sym_BANG, 46, 9,
      tcl_sym_variable_substitution, tcl_sym_braced_word_simple, tcl_sym__expr_atom_no_brace,
      tcl_sym__expr, tcl_sym_unary_expr, tcl_sym_binop_expr, tcl_sym_ternary_expr,
      tcl_sym_quoted_word, tcl_sym_command_substitution]"

definition tcl_small_run_4885 :: "nat list" where
  "tcl_small_run_4885 =
    [10, 363, 1, tcl_sym_simple_word, 365, 1, tcl_anon_sym_DOLLAR, 367, 1, tcl_anon_sym_LBRACE,
      371, 1, tcl_anon_sym_LPAREN2, 375, 1, tcl_anon_sym_DQUOTE, 379, 1, tcl_anon_sym_LBRACK,
      407, 1, tcl_sym_escaped_character, 405, 2, tcl_sym_number, tcl_sym__boolean, 373, 4,
      tcl_anon_sym_DASH, tcl_anon_sym_PLUS, tcl_anon_sym_TILDE, tcl_anon_sym_BANG, 48, 9,
      tcl_sym_variable_substitution, tcl_sym_braced_word_simple, tcl_sym__expr_atom_no_brace,
      tcl_sym__expr, tcl_sym_unary_expr, tcl_sym_binop_expr, tcl_sym_ternary_expr,
      tcl_sym_quoted_word, tcl_sym_command_substitution]"

definition tcl_small_run_4928 :: "nat list" where
  "tcl_small_run_4928 =
    [10, 363, 1, tcl_sym_simple_word, 365, 1, tcl_anon_sym_DOLLAR, 367, 1, tcl_anon_sym_LBRACE,
      371, 1, tcl_anon_sym_LPAREN2, 375, 1, tcl_anon_sym_DQUOTE, 379, 1, tcl_anon_sym_LBRACK,
      411, 1, tcl_sym_escaped_character, 409, 2, tcl_sym_number, tcl_sym__boolean, 373, 4,
      tcl_anon_sym_DASH, tcl_anon_sym_PLUS, tcl_anon_sym_TILDE, tcl_anon_sym_BANG, 47, 9,
      tcl_sym_variable_substitution, tcl_sym_braced_word_simple, tcl_sym__expr_atom_no_brace,
      tcl_sym__expr, tcl_sym_unary_expr, tcl_sym_binop_expr, tcl_sym_ternary_expr,
      tcl_sym_quoted_word, tcl_sym_command_substitution]"

definition tcl_small_run_4971 :: "nat list" where
  "tcl_small_run_4971 =
    [10, 363, 1, tcl_sym_simple_word, 365, 1, tcl_anon_sym_DOLLAR, 367, 1, tcl_anon_sym_LBRACE,
      371, 1, tcl_anon_sym_LPAREN2, 375, 1, tcl_anon_sym_DQUOTE, 379, 1, tcl_anon_sym_LBRACK,
      415, 1, tcl_sym_escaped_character, 413, 2, tcl_sym_number, tcl_sym__boolean, 373, 4,
      tcl_anon_sym_DASH, tcl_anon_sym_PLUS, tcl_anon_sym_TILDE, tcl_anon_sym_BANG, 49, 9,
      tcl_sym_variable_substitution, tcl_sym_braced_word_simple, tcl_sym__expr_atom_no_brace,
      tcl_sym__expr, tcl_sym_unary_expr, tcl_sym_binop_expr, tcl_sym_ternary_expr,
      tcl_sym_quoted_word, tcl_sym_command_substitution]"

definition tcl_small_run_5014 :: "nat list" where
  "tcl_small_run_5014 =
    [10, 363, 1, tcl_sym_simple_word, 365, 1, tcl_anon_sym_DOLLAR, 367, 1, tcl_anon_sym_LBRACE,
      371, 1, tcl_anon_sym_LPAREN2, 375, 1, tcl_anon_sym_DQUOTE, 379, 1, tcl_anon_sym_LBRACK,
      419, 1, tcl_sym_escaped_character, 417, 2, tcl_sym_number, tcl_sym__boolean, 373, 4,
      tcl_anon_sym_DASH, tcl_anon_sym_PLUS, tcl_anon_sym_TILDE, tcl_anon_sym_BANG, 50, 9,
      tcl_sym_variable_substitution, tcl_sym_braced_word_simple, tcl_sym__expr_atom_no_brace,
      tcl_sym__expr, tcl_sym_unary_expr, tcl_sym_binop_expr, tcl_sym_ternary_expr,
      tcl_sym_quoted_word, tcl_sym_command_substitution]"

definition tcl_small_run_5057 :: "nat list" where
  "tcl_small_run_5057 =
    [10, 363, 1, tcl_sym_simple_word, 365, 1, tcl_anon_sym_DOLLAR, 367, 1, tcl_anon_sym_LBRACE,
      371, 1, tcl_anon_sym_LPAREN2, 375, 1, tcl_anon_sym_DQUOTE, 379, 1, tcl_anon_sym_LBRACK,
      423, 1, tcl_sym_escaped_character, 421, 2, tcl_sym_number, tcl_sym__boolean, 373, 4,
      tcl_anon_sym_DASH, tcl_anon_sym_PLUS, tcl_anon_sym_TILDE, tcl_anon_sym_BANG, 51, 9,
      tcl_sym_variable_substitution, tcl_sym_braced_word_simple, tcl_sym__expr_atom_no_brace,
      tcl_sym__expr, tcl_sym_unary_expr, tcl_sym_binop_expr, tcl_sym_ternary_expr,
      tcl_sym_quoted_word, tcl_sym_command_substitution]"

definition tcl_small_run_5100 :: "nat list" where
  "tcl_small_run_5100 =
    [10, 363, 1, tcl_sym_simple_word, 365, 1, tcl_anon_sym_DOLLAR, 367, 1, tcl_anon_sym_LBRACE,
      371, 1, tcl_anon_sym_LPAREN2, 375, 1, tcl_anon_sym_DQUOTE, 379, 1, tcl_anon_sym_LBRACK,
      427, 1, tcl_sym_escaped_character, 425, 2, tcl_sym_number, tcl_sym__boolean, 373, 4,
      tcl_anon_sym_DASH, tcl_anon_sym_PLUS, tcl_anon_sym_TILDE, tcl_anon_sym_BANG, 52, 9,
      tcl_sym_variable_substitution, tcl_sym_braced_word_simple, tcl_sym__expr_atom_no_brace,
      tcl_sym__expr, tcl_sym_unary_expr, tcl_sym_binop_expr, tcl_sym_ternary_expr,
      tcl_sym_quoted_word, tcl_sym_command_substitution]"

definition tcl_small_run_5143 :: "nat list" where
  "tcl_small_run_5143 =
    [10, 363, 1, tcl_sym_simple_word, 365, 1, tcl_anon_sym_DOLLAR, 367, 1, tcl_anon_sym_LBRACE,
      371, 1, tcl_anon_sym_LPAREN2, 375, 1, tcl_anon_sym_DQUOTE, 379, 1, tcl_anon_sym_LBRACK,
      431, 1, tcl_sym_escaped_character, 429, 2, tcl_sym_number, tcl_sym__boolean, 373, 4,
      tcl_anon_sym_DASH, tcl_anon_sym_PLUS, tcl_anon_sym_TILDE, tcl_anon_sym_BANG, 53, 9,
      tcl_sym_variable_substitution, tcl_sym_braced_word_simple, tcl_sym__expr_atom_no_brace,
      tcl_sym__expr, tcl_sym_unary_expr, tcl_sym_binop_expr, tcl_sym_ternary_expr,
      tcl_sym_quoted_word, tcl_sym_command_substitution]"

definition tcl_small_run_5186 :: "nat list" where
  "tcl_small_run_5186 =
    [10, 363, 1, tcl_sym_simple_word, 365, 1, tcl_anon_sym_DOLLAR, 367, 1, tcl_anon_sym_LBRACE,
      371, 1, tcl_anon_sym_LPAREN2, 375, 1, tcl_anon_sym_DQUOTE, 379, 1, tcl_anon_sym_LBRACK,
      435, 1, tcl_sym_escaped_character, 433, 2, tcl_sym_number, tcl_sym__boolean, 373, 4,
      tcl_anon_sym_DASH, tcl_anon_sym_PLUS, tcl_anon_sym_TILDE, tcl_anon_sym_BANG, 54, 9,
      tcl_sym_variable_substitution, tcl_sym_braced_word_simple, tcl_sym__expr_atom_no_brace,
      tcl_sym__expr, tcl_sym_unary_expr, tcl_sym_binop_expr, tcl_sym_ternary_expr,
      tcl_sym_quoted_word, tcl_sym_command_substitution]"

definition tcl_small_run_5229 :: "nat list" where
  "tcl_small_run_5229 =
    [10, 363, 1, tcl_sym_simple_word, 365, 1, tcl_anon_sym_DOLLAR, 367, 1, tcl_anon_sym_LBRACE,
      371, 1, tcl_anon_sym_LPAREN2, 375, 1, tcl_anon_sym_DQUOTE, 379, 1, tcl_anon_sym_LBRACK,
      439, 1, tcl_sym_escaped_character, 437, 2, tcl_sym_number, tcl_sym__boolean, 373, 4,
      tcl_anon_sym_DASH, tcl_anon_sym_PLUS, tcl_anon_sym_TILDE, tcl_anon_sym_BANG, 55, 9,
      tcl_sym_variable_substitution, tcl_sym_braced_word_simple, tcl_sym__expr_atom_no_brace,
      tcl_sym__expr, tcl_sym_unary_expr, tcl_sym_binop_expr, tcl_sym_ternary_expr,
      tcl_sym_quoted_word, tcl_sym_command_substitution]"

definition tcl_small_run_5272 :: "nat list" where
  "tcl_small_run_5272 =
    [10, 363, 1, tcl_sym_simple_word, 365, 1, tcl_anon_sym_DOLLAR, 367, 1, tcl_anon_sym_LBRACE,
      371, 1, tcl_anon_sym_LPAREN2, 375, 1, tcl_anon_sym_DQUOTE, 379, 1, tcl_anon_sym_LBRACK,
      443, 1, tcl_sym_escaped_character, 441, 2, tcl_sym_number, tcl_sym__boolean, 373, 4,
      tcl_anon_sym_DASH, tcl_anon_sym_PLUS, tcl_anon_sym_TILDE, tcl_anon_sym_BANG, 56, 9,
      tcl_sym_variable_substitution, tcl_sym_braced_word_simple, tcl_sym__expr_atom_no_brace,
      tcl_sym__expr, tcl_sym_unary_expr, tcl_sym_binop_expr, tcl_sym_ternary_expr,
      tcl_sym_quoted_word, tcl_sym_command_substitution]"

definition tcl_small_run_5315 :: "nat list" where
  "tcl_small_run_5315 =
    [10, 363, 1, tcl_sym_simple_word, 365, 1, tcl_anon_sym_DOLLAR, 367, 1, tcl_anon_sym_LBRACE,
      371, 1, tcl_anon_sym_LPAREN2, 375, 1, tcl_anon_sym_DQUOTE, 379, 1, tcl_anon_sym_LBRACK,
      447, 1, tcl_sym_escaped_character, 445, 2, tcl_sym_number, tcl_sym__boolean, 373, 4,
      tcl_anon_sym_DASH, tcl_anon_sym_PLUS, tcl_anon_sym_TILDE, tcl_anon_sym_BANG, 57, 9,
      tcl_sym_variable_substitution, tcl_sym_braced_word_simple, tcl_sym__expr_atom_no_brace,
      tcl_sym__expr, tcl_sym_unary_expr, tcl_sym_binop_expr, tcl_sym_ternary_expr,
      tcl_sym_quoted_word, tcl_sym_command_substitution]"

definition tcl_small_run_5358 :: "nat list" where
  "tcl_small_run_5358 =
    [10, 363, 1, tcl_sym_simple_word, 365, 1, tcl_anon_sym_DOLLAR, 367, 1, tcl_anon_sym_LBRACE,
      371, 1, tcl_anon_sym_LPAREN2, 375, 1, tcl_anon_sym_DQUOTE, 379, 1, tcl_anon_sym_LBRACK,
      451, 1, tcl_sym_escaped_character, 449, 2, tcl_sym_number, tcl_sym__boolean, 373, 4,
      tcl_anon_sym_DASH, tcl_anon_sym_PLUS, tcl_anon_sym_TILDE, tcl_anon_sym_BANG, 63, 9,
      tcl_sym_variable_substitution, tcl_sym_braced_word_simple, tcl_sym__expr_atom_no_brace,
      tcl_sym__expr, tcl_sym_unary_expr, tcl_sym_binop_expr, tcl_sym_ternary_expr,
      tcl_sym_quoted_word, tcl_sym_command_substitution]"

definition tcl_small_run_5401 :: "nat list" where
  "tcl_small_run_5401 =
    [10, 363, 1, tcl_sym_simple_word, 365, 1, tcl_anon_sym_DOLLAR, 367, 1, tcl_anon_sym_LBRACE,
      371, 1, tcl_anon_sym_LPAREN2, 375, 1, tcl_anon_sym_DQUOTE, 379, 1, tcl_anon_sym_LBRACK,
      455, 1, tcl_sym_escaped_character, 453, 2, tcl_sym_number, tcl_sym__boolean, 373, 4,
      tcl_anon_sym_DASH, tcl_anon_sym_PLUS, tcl_anon_sym_TILDE, tcl_anon_sym_BANG, 66, 9,
      tcl_sym_variable_substitution, tcl_sym_braced_word_simple, tcl_sym__expr_atom_no_brace,
      tcl_sym__expr, tcl_sym_unary_expr, tcl_sym_binop_expr, tcl_sym_ternary_expr,
      tcl_sym_quoted_word, tcl_sym_command_substitution]"

definition tcl_small_run_5444 :: "nat list" where
  "tcl_small_run_5444 =
    [10, 363, 1, tcl_sym_simple_word, 365, 1, tcl_anon_sym_DOLLAR, 367, 1, tcl_anon_sym_LBRACE,
      371, 1, tcl_anon_sym_LPAREN2, 375, 1, tcl_anon_sym_DQUOTE, 379, 1, tcl_anon_sym_LBRACK,
      459, 1, tcl_sym_escaped_character, 457, 2, tcl_sym_number, tcl_sym__boolean, 373, 4,
      tcl_anon_sym_DASH, tcl_anon_sym_PLUS, tcl_anon_sym_TILDE, tcl_anon_sym_BANG, 71, 9,
      tcl_sym_variable_substitution, tcl_sym_braced_word_simple, tcl_sym__expr_atom_no_brace,
      tcl_sym__expr, tcl_sym_unary_expr, tcl_sym_binop_expr, tcl_sym_ternary_expr,
      tcl_sym_quoted_word, tcl_sym_command_substitution]"

definition tcl_small_run_5487 :: "nat list" where
  "tcl_small_run_5487 =
    [10, 363, 1, tcl_sym_simple_word, 365, 1, tcl_anon_sym_DOLLAR, 367, 1, tcl_anon_sym_LBRACE,
      371, 1, tcl_anon_sym_LPAREN2, 375, 1, tcl_anon_sym_DQUOTE, 379, 1, tcl_anon_sym_LBRACK,
      463, 1, tcl_sym_escaped_character, 461, 2, tcl_sym_number, tcl_sym__boolean, 373, 4,
      tcl_anon_sym_DASH, tcl_anon_sym_PLUS, tcl_anon_sym_TILDE, tcl_anon_sym_BANG, 65, 9,
      tcl_sym_variable_substitution, tcl_sym_braced_word_simple, tcl_sym__expr_atom_no_brace,
      tcl_sym__expr, tcl_sym_unary_expr, tcl_sym_binop_expr, tcl_sym_ternary_expr,
      tcl_sym_quoted_word, tcl_sym_command_substitution]"

definition tcl_small_run_5530 :: "nat list" where
  "tcl_small_run_5530 =
    [10, 363, 1, tcl_sym_simple_word, 365, 1, tcl_anon_sym_DOLLAR, 367, 1, tcl_anon_sym_LBRACE,
      371, 1, tcl_anon_sym_LPAREN2, 375, 1, tcl_anon_sym_DQUOTE, 379, 1, tcl_anon_sym_LBRACK,
      467, 1, tcl_sym_escaped_character, 465, 2, tcl_sym_number, tcl_sym__boolean, 373, 4,
      tcl_anon_sym_DASH, tcl_anon_sym_PLUS, tcl_anon_sym_TILDE, tcl_anon_sym_BANG, 45, 9,
      tcl_sym_variable_substitution, tcl_sym_braced_word_simple, tcl_sym__expr_atom_no_brace,
      tcl_sym__expr, tcl_sym_unary_expr, tcl_sym_binop_expr, tcl_sym_ternary_expr,
      tcl_sym_quoted_word, tcl_sym_command_substitution]"

definition tcl_small_run_5573 :: "nat list" where
  "tcl_small_run_5573 =
    [11, 5, 1, tcl_sym_simple_word, 27, 1, tcl_anon_sym_DOLLAR, 29, 1, tcl_anon_sym_LBRACE, 43,
      1, tcl_anon_sym_DQUOTE, 45, 1, tcl_sym_escaped_character, 47, 1, tcl_anon_sym_LBRACK, 471,
      1, tcl_sym_unpack, 578, 1, tcl_sym_word_list, 469, 3, tcl_anon_sym_LF, tcl_anon_sym_SEMI,
      tcl_anon_sym_RBRACE, 98, 3, tcl_sym__concat_word, tcl_sym_braced_word,
      tcl_aux_sym_word_list_repeat1, 198, 3, tcl_sym_variable_substitution, tcl_sym_quoted_word,
      tcl_sym_command_substitution]"

definition tcl_small_run_5613 :: "nat list" where
  "tcl_small_run_5613 =
    [11, 5, 1, tcl_sym_simple_word, 27, 1, tcl_anon_sym_DOLLAR, 29, 1, tcl_anon_sym_LBRACE, 43,
      1, tcl_anon_sym_DQUOTE, 45, 1, tcl_sym_escaped_character, 47, 1, tcl_anon_sym_LBRACK, 471,
      1, tcl_sym_unpack, 562, 1, tcl_sym_word_list, 473, 3, tcl_anon_sym_LF, tcl_anon_sym_SEMI,
      tcl_anon_sym_RBRACE, 98, 3, tcl_sym__concat_word, tcl_sym_braced_word,
      tcl_aux_sym_word_list_repeat1, 198, 3, tcl_sym_variable_substitution, tcl_sym_quoted_word,
      tcl_sym_command_substitution]"

definition tcl_small_run_5653 :: "nat list" where
  "tcl_small_run_5653 =
    [10, 5, 1, tcl_sym_simple_word, 27, 1, tcl_anon_sym_DOLLAR, 29, 1, tcl_anon_sym_LBRACE, 43,
      1, tcl_anon_sym_DQUOTE, 45, 1, tcl_sym_escaped_character, 47, 1, tcl_anon_sym_LBRACK, 471,
      1, tcl_sym_unpack, 475, 3, tcl_anon_sym_LF, tcl_anon_sym_SEMI, tcl_anon_sym_RBRACE, 99, 3,
      tcl_sym__concat_word, tcl_sym_braced_word, tcl_aux_sym_word_list_repeat1, 198, 3,
      tcl_sym_variable_substitution, tcl_sym_quoted_word, tcl_sym_command_substitution]"

definition tcl_small_run_5690 :: "nat list" where
  "tcl_small_run_5690 =
    [10, 477, 1, tcl_sym_simple_word, 482, 1, tcl_sym_unpack, 485, 1, tcl_anon_sym_DOLLAR, 488,
      1, tcl_anon_sym_LBRACE, 491, 1, tcl_anon_sym_DQUOTE, 494, 1, tcl_sym_escaped_character,
      497, 1, tcl_anon_sym_LBRACK, 480, 3, tcl_anon_sym_LF, tcl_anon_sym_SEMI,
      tcl_anon_sym_RBRACE, 99, 3, tcl_sym__concat_word, tcl_sym_braced_word,
      tcl_aux_sym_word_list_repeat1, 198, 3, tcl_sym_variable_substitution, tcl_sym_quoted_word,
      tcl_sym_command_substitution]"

definition tcl_small_run_5727 :: "nat list" where
  "tcl_small_run_5727 =
    [10, 504, 1, tcl_anon_sym_LPAREN, 506, 1, tcl_anon_sym_DOLLAR, 508, 1, tcl_anon_sym_LBRACE,
      510, 1, tcl_anon_sym_DQUOTE, 512, 1, tcl_anon_sym_LBRACK, 114, 1, tcl_sym_array_index, 553,
      1, tcl_sym__word_simple, 500, 2, tcl_sym_escaped_character, tcl_sym_simple_word, 502, 3,
      tcl_anon_sym_LF, tcl_anon_sym_SEMI, tcl_anon_sym_RBRACE, 498, 4,
      tcl_sym_variable_substitution, tcl_sym_braced_word_simple, tcl_sym_quoted_word,
      tcl_sym_command_substitution]"

definition tcl_small_run_5764 :: "nat list" where
  "tcl_small_run_5764 =
    [5, 514, 1, tcl_anon_sym_COLON_COLON, 103, 1, tcl_aux_sym__id_immediate_repeat1, 674, 1,
      tcl_sym__ns_delim, 244, 2, tcl_sym__concat, tcl_anon_sym_LPAREN, 246, 10, tcl_anon_sym_LF,
      tcl_anon_sym_SEMI, tcl_sym_unpack, tcl_anon_sym_DOLLAR, tcl_anon_sym_LBRACE,
      tcl_anon_sym_RBRACE, tcl_anon_sym_DQUOTE, tcl_sym_escaped_character, tcl_anon_sym_LBRACK,
      tcl_sym_simple_word]"

definition tcl_small_run_5790 :: "nat list" where
  "tcl_small_run_5790 =
    [11, 167, 1, tcl_sym_simple_word, 187, 1, tcl_anon_sym_DOLLAR, 189, 1, tcl_anon_sym_LBRACE,
      203, 1, tcl_anon_sym_DQUOTE, 205, 1, tcl_sym_escaped_character, 207, 1,
      tcl_anon_sym_LBRACK, 469, 1, tcl_anon_sym_RBRACK, 516, 1, tcl_sym_unpack, 607, 1,
      tcl_sym_word_list, 111, 3, tcl_sym__concat_word, tcl_sym_braced_word,
      tcl_aux_sym_word_list_repeat1, 304, 3, tcl_sym_variable_substitution, tcl_sym_quoted_word,
      tcl_sym_command_substitution]"

definition tcl_small_run_5828 :: "nat list" where
  "tcl_small_run_5828 =
    [5, 514, 1, tcl_anon_sym_COLON_COLON, 104, 1, tcl_aux_sym__id_immediate_repeat1, 674, 1,
      tcl_sym__ns_delim, 229, 2, tcl_sym__concat, tcl_anon_sym_LPAREN, 231, 10, tcl_anon_sym_LF,
      tcl_anon_sym_SEMI, tcl_sym_unpack, tcl_anon_sym_DOLLAR, tcl_anon_sym_LBRACE,
      tcl_anon_sym_RBRACE, tcl_anon_sym_DQUOTE, tcl_sym_escaped_character, tcl_anon_sym_LBRACK,
      tcl_sym_simple_word]"

definition tcl_small_run_5854 :: "nat list" where
  "tcl_small_run_5854 =
    [5, 518, 1, tcl_anon_sym_COLON_COLON, 104, 1, tcl_aux_sym__id_immediate_repeat1, 674, 1,
      tcl_sym__ns_delim, 236, 2, tcl_sym__concat, tcl_anon_sym_LPAREN, 238, 10, tcl_anon_sym_LF,
      tcl_anon_sym_SEMI, tcl_sym_unpack, tcl_anon_sym_DOLLAR, tcl_anon_sym_LBRACE,
      tcl_anon_sym_RBRACE, tcl_anon_sym_DQUOTE, tcl_sym_escaped_character, tcl_anon_sym_LBRACK,
      tcl_sym_simple_word]"

definition tcl_small_run_5880 :: "nat list" where
  "tcl_small_run_5880 =
    [11, 167, 1, tcl_sym_simple_word, 187, 1, tcl_anon_sym_DOLLAR, 189, 1, tcl_anon_sym_LBRACE,
      203, 1, tcl_anon_sym_DQUOTE, 205, 1, tcl_sym_escaped_character, 207, 1,
      tcl_anon_sym_LBRACK, 473, 1, tcl_anon_sym_RBRACK, 516, 1, tcl_sym_unpack, 635, 1,
      tcl_sym_word_list, 111, 3, tcl_sym__concat_word, tcl_sym_braced_word,
      tcl_aux_sym_word_list_repeat1, 304, 3, tcl_sym_variable_substitution, tcl_sym_quoted_word,
      tcl_sym_command_substitution]"

definition tcl_small_run_5918 :: "nat list" where
  "tcl_small_run_5918 =
    [5, 514, 1, tcl_anon_sym_COLON_COLON, 107, 1, tcl_aux_sym__id_immediate_repeat1, 674, 1,
      tcl_sym__ns_delim, 240, 2, tcl_sym__concat, tcl_anon_sym_LPAREN, 242, 10, tcl_anon_sym_LF,
      tcl_anon_sym_SEMI, tcl_sym_unpack, tcl_anon_sym_DOLLAR, tcl_anon_sym_LBRACE,
      tcl_anon_sym_RBRACE, tcl_anon_sym_DQUOTE, tcl_sym_escaped_character, tcl_anon_sym_LBRACK,
      tcl_sym_simple_word]"

definition tcl_small_run_5944 :: "nat list" where
  "tcl_small_run_5944 =
    [5, 514, 1, tcl_anon_sym_COLON_COLON, 104, 1, tcl_aux_sym__id_immediate_repeat1, 674, 1,
      tcl_sym__ns_delim, 244, 2, tcl_sym__concat, tcl_anon_sym_LPAREN, 246, 10, tcl_anon_sym_LF,
      tcl_anon_sym_SEMI, tcl_sym_unpack, tcl_anon_sym_DOLLAR, tcl_anon_sym_LBRACE,
      tcl_anon_sym_RBRACE, tcl_anon_sym_DQUOTE, tcl_sym_escaped_character, tcl_anon_sym_LBRACK,
      tcl_sym_simple_word]"

definition tcl_small_run_5970 :: "nat list" where
  "tcl_small_run_5970 =
    [5, 523, 1, tcl_anon_sym_LPAREN, 525, 1, tcl_sym__concat, 182, 1,
      tcl_aux_sym__concat_word_repeat1, 183, 1, tcl_sym_array_index, 521, 10, tcl_anon_sym_LF,
      tcl_anon_sym_SEMI, tcl_sym_unpack, tcl_anon_sym_DOLLAR, tcl_anon_sym_LBRACE,
      tcl_anon_sym_RBRACE, tcl_anon_sym_DQUOTE, tcl_sym_escaped_character, tcl_anon_sym_LBRACK,
      tcl_sym_simple_word]"

definition tcl_small_run_5995 :: "nat list" where
  "tcl_small_run_5995 =
    [10, 5, 1, tcl_sym_simple_word, 27, 1, tcl_anon_sym_DOLLAR, 29, 1, tcl_anon_sym_LBRACE, 43,
      1, tcl_anon_sym_DQUOTE, 47, 1, tcl_anon_sym_LBRACK, 149, 1, tcl_sym_escaped_character, 471,
      1, tcl_sym_unpack, 537, 1, tcl_sym_word_list, 98, 3, tcl_sym__concat_word,
      tcl_sym_braced_word, tcl_aux_sym_word_list_repeat1, 198, 3, tcl_sym_variable_substitution,
      tcl_sym_quoted_word, tcl_sym_command_substitution]"

definition tcl_small_run_6030 :: "nat list" where
  "tcl_small_run_6030 =
    [11, 502, 1, tcl_anon_sym_RBRACK, 527, 1, tcl_sym_simple_word, 529, 1, tcl_anon_sym_LPAREN,
      531, 1, tcl_anon_sym_DOLLAR, 533, 1, tcl_anon_sym_LBRACE, 535, 1, tcl_anon_sym_DQUOTE, 537,
      1, tcl_sym_escaped_character, 539, 1, tcl_anon_sym_LBRACK, 196, 1, tcl_sym_array_index,
      678, 1, tcl_sym__word_simple, 514, 4, tcl_sym_variable_substitution,
      tcl_sym_braced_word_simple, tcl_sym_quoted_word, tcl_sym_command_substitution]"

definition tcl_small_run_6067 :: "nat list" where
  "tcl_small_run_6067 =
    [10, 167, 1, tcl_sym_simple_word, 187, 1, tcl_anon_sym_DOLLAR, 189, 1, tcl_anon_sym_LBRACE,
      203, 1, tcl_anon_sym_DQUOTE, 205, 1, tcl_sym_escaped_character, 207, 1,
      tcl_anon_sym_LBRACK, 475, 1, tcl_anon_sym_RBRACK, 516, 1, tcl_sym_unpack, 112, 3,
      tcl_sym__concat_word, tcl_sym_braced_word, tcl_aux_sym_word_list_repeat1, 304, 3,
      tcl_sym_variable_substitution, tcl_sym_quoted_word, tcl_sym_command_substitution]"

definition tcl_small_run_6102 :: "nat list" where
  "tcl_small_run_6102 =
    [10, 480, 1, tcl_anon_sym_RBRACK, 541, 1, tcl_sym_simple_word, 544, 1, tcl_sym_unpack, 547,
      1, tcl_anon_sym_DOLLAR, 550, 1, tcl_anon_sym_LBRACE, 553, 1, tcl_anon_sym_DQUOTE, 556, 1,
      tcl_sym_escaped_character, 559, 1, tcl_anon_sym_LBRACK, 112, 3, tcl_sym__concat_word,
      tcl_sym_braced_word, tcl_aux_sym_word_list_repeat1, 304, 3, tcl_sym_variable_substitution,
      tcl_sym_quoted_word, tcl_sym_command_substitution]"

definition tcl_small_run_6137 :: "nat list" where
  "tcl_small_run_6137 =
    [8, 506, 1, tcl_anon_sym_DOLLAR, 508, 1, tcl_anon_sym_LBRACE, 510, 1, tcl_anon_sym_DQUOTE,
      512, 1, tcl_anon_sym_LBRACK, 567, 1, tcl_sym__word_simple, 500, 2,
      tcl_sym_escaped_character, tcl_sym_simple_word, 562, 3, tcl_anon_sym_LF, tcl_anon_sym_SEMI,
      tcl_anon_sym_RBRACE, 498, 4, tcl_sym_variable_substitution, tcl_sym_braced_word_simple,
      tcl_sym_quoted_word, tcl_sym_command_substitution]"

definition tcl_small_run_6168 :: "nat list" where
  "tcl_small_run_6168 =
    [8, 506, 1, tcl_anon_sym_DOLLAR, 508, 1, tcl_anon_sym_LBRACE, 510, 1, tcl_anon_sym_DQUOTE,
      512, 1, tcl_anon_sym_LBRACK, 546, 1, tcl_sym__word_simple, 500, 2,
      tcl_sym_escaped_character, tcl_sym_simple_word, 564, 3, tcl_anon_sym_LF, tcl_anon_sym_SEMI,
      tcl_anon_sym_RBRACE, 498, 4, tcl_sym_variable_substitution, tcl_sym_braced_word_simple,
      tcl_sym_quoted_word, tcl_sym_command_substitution]"

definition tcl_small_run_6199 :: "nat list" where
  "tcl_small_run_6199 =
    [10, 167, 1, tcl_sym_simple_word, 187, 1, tcl_anon_sym_DOLLAR, 189, 1, tcl_anon_sym_LBRACE,
      203, 1, tcl_anon_sym_DQUOTE, 205, 1, tcl_sym_escaped_character, 207, 1,
      tcl_anon_sym_LBRACK, 516, 1, tcl_sym_unpack, 672, 1, tcl_sym_word_list, 111, 3,
      tcl_sym__concat_word, tcl_sym_braced_word, tcl_aux_sym_word_list_repeat1, 304, 3,
      tcl_sym_variable_substitution, tcl_sym_quoted_word, tcl_sym_command_substitution]"

definition tcl_small_run_6234 :: "nat list" where
  "tcl_small_run_6234 =
    [5, 566, 1, tcl_anon_sym_COLON_COLON, 145, 1, tcl_aux_sym__id_immediate_repeat1, 638, 1,
      tcl_sym__ns_delim, 244, 3, tcl_sym__concat, tcl_anon_sym_LPAREN, tcl_sym_escaped_character,
      246, 7, tcl_sym_unpack, tcl_anon_sym_DOLLAR, tcl_anon_sym_LBRACE, tcl_anon_sym_DQUOTE,
      tcl_anon_sym_LBRACK, tcl_anon_sym_RBRACK, tcl_sym_simple_word]"

definition tcl_small_run_6258 :: "nat list" where
  "tcl_small_run_6258 =
    [5, 568, 1, tcl_anon_sym_COLON_COLON, 117, 1, tcl_aux_sym__id_immediate_repeat1, 638, 1,
      tcl_sym__ns_delim, 236, 3, tcl_sym__concat, tcl_anon_sym_LPAREN, tcl_sym_escaped_character,
      238, 7, tcl_sym_unpack, tcl_anon_sym_DOLLAR, tcl_anon_sym_LBRACE, tcl_anon_sym_DQUOTE,
      tcl_anon_sym_LBRACK, tcl_anon_sym_RBRACK, tcl_sym_simple_word]"

definition tcl_small_run_6282 :: "nat list" where
  "tcl_small_run_6282 =
    [2, 236, 2, tcl_sym__concat, tcl_anon_sym_LPAREN, 238, 11, tcl_anon_sym_LF,
      tcl_anon_sym_SEMI, tcl_sym_unpack, tcl_anon_sym_COLON_COLON, tcl_anon_sym_DOLLAR,
      tcl_anon_sym_LBRACE, tcl_anon_sym_RBRACE, tcl_anon_sym_DQUOTE, tcl_sym_escaped_character,
      tcl_anon_sym_LBRACK, tcl_sym_simple_word]"

definition tcl_small_run_6300 :: "nat list" where
  "tcl_small_run_6300 =
    [8, 571, 1, tcl_sym_simple_word, 576, 1, tcl_anon_sym_DOLLAR, 579, 1, tcl_anon_sym_DQUOTE,
      582, 1, tcl_sym_escaped_character, 585, 1, tcl_anon_sym_LBRACK, 119, 2,
      tcl_sym__concat_word, tcl_aux_sym_regexp_repeat1, 574, 3, tcl_anon_sym_LF,
      tcl_anon_sym_SEMI, tcl_anon_sym_RBRACE, 198, 3, tcl_sym_variable_substitution,
      tcl_sym_quoted_word, tcl_sym_command_substitution]"

definition tcl_small_run_6330 :: "nat list" where
  "tcl_small_run_6330 =
    [4, 254, 1, tcl_sym__concat, 523, 1, tcl_anon_sym_LPAREN, 211, 1, tcl_sym_array_index, 256,
      10, tcl_anon_sym_LF, tcl_anon_sym_SEMI, tcl_sym_unpack, tcl_anon_sym_DOLLAR,
      tcl_anon_sym_LBRACE, tcl_anon_sym_RBRACE, tcl_anon_sym_DQUOTE, tcl_sym_escaped_character,
      tcl_anon_sym_LBRACK, tcl_sym_simple_word]"

definition tcl_small_run_6352 :: "nat list" where
  "tcl_small_run_6352 =
    [8, 5, 1, tcl_sym_simple_word, 27, 1, tcl_anon_sym_DOLLAR, 43, 1, tcl_anon_sym_DQUOTE, 45, 1,
      tcl_sym_escaped_character, 47, 1, tcl_anon_sym_LBRACK, 119, 2, tcl_sym__concat_word,
      tcl_aux_sym_regexp_repeat1, 588, 3, tcl_anon_sym_LF, tcl_anon_sym_SEMI,
      tcl_anon_sym_RBRACE, 198, 3, tcl_sym_variable_substitution, tcl_sym_quoted_word,
      tcl_sym_command_substitution]"

definition tcl_small_run_6382 :: "nat list" where
  "tcl_small_run_6382 =
    [5, 592, 1, tcl_anon_sym_COLON_COLON, 594, 1, tcl_anon_sym_LPAREN, 144, 1,
      tcl_aux_sym__id_immediate_repeat1, 676, 1, tcl_sym__ns_delim, 590, 9, tcl_anon_sym_LF,
      tcl_anon_sym_SEMI, tcl_anon_sym_DOLLAR, tcl_anon_sym_LBRACE, tcl_anon_sym_RBRACE,
      tcl_anon_sym_DQUOTE, tcl_sym_escaped_character, tcl_anon_sym_LBRACK, tcl_sym_simple_word]"

definition tcl_small_run_6406 :: "nat list" where
  "tcl_small_run_6406 =
    [5, 592, 1, tcl_anon_sym_COLON_COLON, 598, 1, tcl_anon_sym_LPAREN, 144, 1,
      tcl_aux_sym__id_immediate_repeat1, 676, 1, tcl_sym__ns_delim, 596, 9, tcl_anon_sym_LF,
      tcl_anon_sym_SEMI, tcl_anon_sym_DOLLAR, tcl_anon_sym_LBRACE, tcl_anon_sym_RBRACE,
      tcl_anon_sym_DQUOTE, tcl_sym_escaped_character, tcl_anon_sym_LBRACK, tcl_sym_simple_word]"

definition tcl_small_run_6430 :: "nat list" where
  "tcl_small_run_6430 =
    [5, 592, 1, tcl_anon_sym_COLON_COLON, 598, 1, tcl_anon_sym_LPAREN, 122, 1,
      tcl_aux_sym__id_immediate_repeat1, 676, 1, tcl_sym__ns_delim, 596, 9, tcl_anon_sym_LF,
      tcl_anon_sym_SEMI, tcl_anon_sym_DOLLAR, tcl_anon_sym_LBRACE, tcl_anon_sym_RBRACE,
      tcl_anon_sym_DQUOTE, tcl_sym_escaped_character, tcl_anon_sym_LBRACK, tcl_sym_simple_word]"

definition tcl_small_run_6454 :: "nat list" where
  "tcl_small_run_6454 =
    [9, 600, 1, tcl_sym_simple_word, 602, 1, tcl_anon_sym_DOLLAR, 604, 1, tcl_anon_sym_LBRACE,
      606, 1, tcl_anon_sym_RBRACE, 608, 1, tcl_anon_sym_DQUOTE, 610, 1,
      tcl_sym_escaped_character, 612, 1, tcl_anon_sym_LBRACK, 126, 2, tcl_sym__word_simple,
      tcl_aux_sym_braced_word_simple_repeat1, 339, 4, tcl_sym_variable_substitution,
      tcl_sym_braced_word_simple, tcl_sym_quoted_word, tcl_sym_command_substitution]"

definition tcl_small_run_6486 :: "nat list" where
  "tcl_small_run_6486 =
    [9, 600, 1, tcl_sym_simple_word, 602, 1, tcl_anon_sym_DOLLAR, 604, 1, tcl_anon_sym_LBRACE,
      608, 1, tcl_anon_sym_DQUOTE, 610, 1, tcl_sym_escaped_character, 612, 1,
      tcl_anon_sym_LBRACK, 614, 1, tcl_anon_sym_RBRACE, 128, 2, tcl_sym__word_simple,
      tcl_aux_sym_braced_word_simple_repeat1, 339, 4, tcl_sym_variable_substitution,
      tcl_sym_braced_word_simple, tcl_sym_quoted_word, tcl_sym_command_substitution]"

definition tcl_small_run_6518 :: "nat list" where
  "tcl_small_run_6518 =
    [4, 523, 1, tcl_anon_sym_LPAREN, 618, 1, tcl_sym__concat, 264, 1, tcl_sym_array_index, 616,
      10, tcl_anon_sym_LF, tcl_anon_sym_SEMI, tcl_sym_unpack, tcl_anon_sym_DOLLAR,
      tcl_anon_sym_LBRACE, tcl_anon_sym_RBRACE, tcl_anon_sym_DQUOTE, tcl_sym_escaped_character,
      tcl_anon_sym_LBRACK, tcl_sym_simple_word]"

definition tcl_small_run_6540 :: "nat list" where
  "tcl_small_run_6540 =
    [9, 620, 1, tcl_sym_simple_word, 623, 1, tcl_anon_sym_DOLLAR, 626, 1, tcl_anon_sym_LBRACE,
      629, 1, tcl_anon_sym_RBRACE, 631, 1, tcl_anon_sym_DQUOTE, 634, 1,
      tcl_sym_escaped_character, 637, 1, tcl_anon_sym_LBRACK, 128, 2, tcl_sym__word_simple,
      tcl_aux_sym_braced_word_simple_repeat1, 339, 4, tcl_sym_variable_substitution,
      tcl_sym_braced_word_simple, tcl_sym_quoted_word, tcl_sym_command_substitution]"

definition tcl_small_run_6572 :: "nat list" where
  "tcl_small_run_6572 =
    [8, 5, 1, tcl_sym_simple_word, 27, 1, tcl_anon_sym_DOLLAR, 43, 1, tcl_anon_sym_DQUOTE, 45, 1,
      tcl_sym_escaped_character, 47, 1, tcl_anon_sym_LBRACK, 119, 2, tcl_sym__concat_word,
      tcl_aux_sym_regexp_repeat1, 640, 3, tcl_anon_sym_LF, tcl_anon_sym_SEMI,
      tcl_anon_sym_RBRACE, 198, 3, tcl_sym_variable_substitution, tcl_sym_quoted_word,
      tcl_sym_command_substitution]"

definition tcl_small_run_6602 :: "nat list" where
  "tcl_small_run_6602 =
    [9, 600, 1, tcl_sym_simple_word, 602, 1, tcl_anon_sym_DOLLAR, 604, 1, tcl_anon_sym_LBRACE,
      608, 1, tcl_anon_sym_DQUOTE, 610, 1, tcl_sym_escaped_character, 612, 1,
      tcl_anon_sym_LBRACK, 642, 1, tcl_anon_sym_RBRACE, 131, 2, tcl_sym__word_simple,
      tcl_aux_sym_braced_word_simple_repeat1, 339, 4, tcl_sym_variable_substitution,
      tcl_sym_braced_word_simple, tcl_sym_quoted_word, tcl_sym_command_substitution]"

definition tcl_small_run_6634 :: "nat list" where
  "tcl_small_run_6634 =
    [9, 600, 1, tcl_sym_simple_word, 602, 1, tcl_anon_sym_DOLLAR, 604, 1, tcl_anon_sym_LBRACE,
      608, 1, tcl_anon_sym_DQUOTE, 610, 1, tcl_sym_escaped_character, 612, 1,
      tcl_anon_sym_LBRACK, 644, 1, tcl_anon_sym_RBRACE, 128, 2, tcl_sym__word_simple,
      tcl_aux_sym_braced_word_simple_repeat1, 339, 4, tcl_sym_variable_substitution,
      tcl_sym_braced_word_simple, tcl_sym_quoted_word, tcl_sym_command_substitution]"

definition tcl_small_run_6666 :: "nat list" where
  "tcl_small_run_6666 =
    [4, 250, 1, tcl_sym__concat, 523, 1, tcl_anon_sym_LPAREN, 208, 1, tcl_sym_array_index, 252,
      10, tcl_anon_sym_LF, tcl_anon_sym_SEMI, tcl_sym_unpack, tcl_anon_sym_DOLLAR,
      tcl_anon_sym_LBRACE, tcl_anon_sym_RBRACE, tcl_anon_sym_DQUOTE, tcl_sym_escaped_character,
      tcl_anon_sym_LBRACK, tcl_sym_simple_word]"

definition tcl_small_run_6688 :: "nat list" where
  "tcl_small_run_6688 =
    [5, 592, 1, tcl_anon_sym_COLON_COLON, 648, 1, tcl_anon_sym_LPAREN, 123, 1,
      tcl_aux_sym__id_immediate_repeat1, 676, 1, tcl_sym__ns_delim, 646, 9, tcl_anon_sym_LF,
      tcl_anon_sym_SEMI, tcl_anon_sym_DOLLAR, tcl_anon_sym_LBRACE, tcl_anon_sym_RBRACE,
      tcl_anon_sym_DQUOTE, tcl_sym_escaped_character, tcl_anon_sym_LBRACK, tcl_sym_simple_word]"

definition tcl_small_run_6712 :: "nat list" where
  "tcl_small_run_6712 =
    [9, 600, 1, tcl_sym_simple_word, 602, 1, tcl_anon_sym_DOLLAR, 604, 1, tcl_anon_sym_LBRACE,
      608, 1, tcl_anon_sym_DQUOTE, 610, 1, tcl_sym_escaped_character, 612, 1,
      tcl_anon_sym_LBRACK, 650, 1, tcl_anon_sym_RBRACE, 135, 2, tcl_sym__word_simple,
      tcl_aux_sym_braced_word_simple_repeat1, 339, 4, tcl_sym_variable_substitution,
      tcl_sym_braced_word_simple, tcl_sym_quoted_word, tcl_sym_command_substitution]"

definition tcl_small_run_6744 :: "nat list" where
  "tcl_small_run_6744 =
    [9, 600, 1, tcl_sym_simple_word, 602, 1, tcl_anon_sym_DOLLAR, 604, 1, tcl_anon_sym_LBRACE,
      608, 1, tcl_anon_sym_DQUOTE, 610, 1, tcl_sym_escaped_character, 612, 1,
      tcl_anon_sym_LBRACK, 652, 1, tcl_anon_sym_RBRACE, 128, 2, tcl_sym__word_simple,
      tcl_aux_sym_braced_word_simple_repeat1, 339, 4, tcl_sym_variable_substitution,
      tcl_sym_braced_word_simple, tcl_sym_quoted_word, tcl_sym_command_substitution]"

definition tcl_small_run_6776 :: "nat list" where
  "tcl_small_run_6776 =
    [9, 600, 1, tcl_sym_simple_word, 602, 1, tcl_anon_sym_DOLLAR, 604, 1, tcl_anon_sym_LBRACE,
      608, 1, tcl_anon_sym_DQUOTE, 610, 1, tcl_sym_escaped_character, 612, 1,
      tcl_anon_sym_LBRACK, 654, 1, tcl_anon_sym_RBRACE, 137, 2, tcl_sym__word_simple,
      tcl_aux_sym_braced_word_simple_repeat1, 339, 4, tcl_sym_variable_substitution,
      tcl_sym_braced_word_simple, tcl_sym_quoted_word, tcl_sym_command_substitution]"

definition tcl_small_run_6808 :: "nat list" where
  "tcl_small_run_6808 =
    [9, 600, 1, tcl_sym_simple_word, 602, 1, tcl_anon_sym_DOLLAR, 604, 1, tcl_anon_sym_LBRACE,
      608, 1, tcl_anon_sym_DQUOTE, 610, 1, tcl_sym_escaped_character, 612, 1,
      tcl_anon_sym_LBRACK, 656, 1, tcl_anon_sym_RBRACE, 128, 2, tcl_sym__word_simple,
      tcl_aux_sym_braced_word_simple_repeat1, 339, 4, tcl_sym_variable_substitution,
      tcl_sym_braced_word_simple, tcl_sym_quoted_word, tcl_sym_command_substitution]"

definition tcl_small_run_6840 :: "nat list" where
  "tcl_small_run_6840 =
    [8, 5, 1, tcl_sym_simple_word, 27, 1, tcl_anon_sym_DOLLAR, 43, 1, tcl_anon_sym_DQUOTE, 45, 1,
      tcl_sym_escaped_character, 47, 1, tcl_anon_sym_LBRACK, 121, 2, tcl_sym__concat_word,
      tcl_aux_sym_regexp_repeat1, 658, 3, tcl_anon_sym_LF, tcl_anon_sym_SEMI,
      tcl_anon_sym_RBRACE, 198, 3, tcl_sym_variable_substitution, tcl_sym_quoted_word,
      tcl_sym_command_substitution]"

definition tcl_small_run_6870 :: "nat list" where
  "tcl_small_run_6870 =
    [5, 566, 1, tcl_anon_sym_COLON_COLON, 142, 1, tcl_aux_sym__id_immediate_repeat1, 638, 1,
      tcl_sym__ns_delim, 240, 3, tcl_sym__concat, tcl_anon_sym_LPAREN, tcl_sym_escaped_character,
      242, 7, tcl_sym_unpack, tcl_anon_sym_DOLLAR, tcl_anon_sym_LBRACE, tcl_anon_sym_DQUOTE,
      tcl_anon_sym_LBRACK, tcl_anon_sym_RBRACK, tcl_sym_simple_word]"

definition tcl_small_run_6894 :: "nat list" where
  "tcl_small_run_6894 =
    [9, 600, 1, tcl_sym_simple_word, 602, 1, tcl_anon_sym_DOLLAR, 604, 1, tcl_anon_sym_LBRACE,
      608, 1, tcl_anon_sym_DQUOTE, 610, 1, tcl_sym_escaped_character, 612, 1,
      tcl_anon_sym_LBRACK, 660, 1, tcl_anon_sym_RBRACE, 128, 2, tcl_sym__word_simple,
      tcl_aux_sym_braced_word_simple_repeat1, 339, 4, tcl_sym_variable_substitution,
      tcl_sym_braced_word_simple, tcl_sym_quoted_word, tcl_sym_command_substitution]"

definition tcl_small_run_6926 :: "nat list" where
  "tcl_small_run_6926 =
    [8, 5, 1, tcl_sym_simple_word, 27, 1, tcl_anon_sym_DOLLAR, 43, 1, tcl_anon_sym_DQUOTE, 45, 1,
      tcl_sym_escaped_character, 47, 1, tcl_anon_sym_LBRACK, 129, 2, tcl_sym__concat_word,
      tcl_aux_sym_regexp_repeat1, 662, 3, tcl_anon_sym_LF, tcl_anon_sym_SEMI,
      tcl_anon_sym_RBRACE, 198, 3, tcl_sym_variable_substitution, tcl_sym_quoted_word,
      tcl_sym_command_substitution]"

definition tcl_small_run_6956 :: "nat list" where
  "tcl_small_run_6956 =
    [5, 566, 1, tcl_anon_sym_COLON_COLON, 117, 1, tcl_aux_sym__id_immediate_repeat1, 638, 1,
      tcl_sym__ns_delim, 244, 3, tcl_sym__concat, tcl_anon_sym_LPAREN, tcl_sym_escaped_character,
      246, 7, tcl_sym_unpack, tcl_anon_sym_DOLLAR, tcl_anon_sym_LBRACE, tcl_anon_sym_DQUOTE,
      tcl_anon_sym_LBRACK, tcl_anon_sym_RBRACK, tcl_sym_simple_word]"

definition tcl_small_run_6980 :: "nat list" where
  "tcl_small_run_6980 =
    [9, 600, 1, tcl_sym_simple_word, 602, 1, tcl_anon_sym_DOLLAR, 604, 1, tcl_anon_sym_LBRACE,
      608, 1, tcl_anon_sym_DQUOTE, 610, 1, tcl_sym_escaped_character, 612, 1,
      tcl_anon_sym_LBRACK, 664, 1, tcl_anon_sym_RBRACE, 140, 2, tcl_sym__word_simple,
      tcl_aux_sym_braced_word_simple_repeat1, 339, 4, tcl_sym_variable_substitution,
      tcl_sym_braced_word_simple, tcl_sym_quoted_word, tcl_sym_command_substitution]"

definition tcl_small_run_7012 :: "nat list" where
  "tcl_small_run_7012 =
    [5, 236, 1, tcl_anon_sym_LPAREN, 666, 1, tcl_anon_sym_COLON_COLON, 144, 1,
      tcl_aux_sym__id_immediate_repeat1, 676, 1, tcl_sym__ns_delim, 238, 9, tcl_anon_sym_LF,
      tcl_anon_sym_SEMI, tcl_anon_sym_DOLLAR, tcl_anon_sym_LBRACE, tcl_anon_sym_RBRACE,
      tcl_anon_sym_DQUOTE, tcl_sym_escaped_character, tcl_anon_sym_LBRACK, tcl_sym_simple_word]"

definition tcl_small_run_7036 :: "nat list" where
  "tcl_small_run_7036 =
    [5, 566, 1, tcl_anon_sym_COLON_COLON, 117, 1, tcl_aux_sym__id_immediate_repeat1, 638, 1,
      tcl_sym__ns_delim, 229, 3, tcl_sym__concat, tcl_anon_sym_LPAREN, tcl_sym_escaped_character,
      231, 7, tcl_sym_unpack, tcl_anon_sym_DOLLAR, tcl_anon_sym_LBRACE, tcl_anon_sym_DQUOTE,
      tcl_anon_sym_LBRACK, tcl_anon_sym_RBRACK, tcl_sym_simple_word]"

definition tcl_small_run_7060 :: "nat list" where
  "tcl_small_run_7060 =
    [9, 531, 1, tcl_anon_sym_DOLLAR, 535, 1, tcl_anon_sym_DQUOTE, 539, 1, tcl_anon_sym_LBRACK,
      669, 1, tcl_sym_simple_word, 671, 1, tcl_sym_unpack, 673, 1, tcl_anon_sym_LBRACE, 675, 1,
      tcl_sym_escaped_character, 681, 2, tcl_sym__concat_word, tcl_sym_braced_word, 595, 3,
      tcl_sym_variable_substitution, tcl_sym_quoted_word, tcl_sym_command_substitution]"

definition tcl_small_run_7091 :: "nat list" where
  "tcl_small_run_7091 =
    [9, 677, 1, tcl_sym_simple_word, 679, 1, tcl_sym_unpack, 681, 1, tcl_anon_sym_DOLLAR, 683, 1,
      tcl_anon_sym_LBRACE, 685, 1, tcl_anon_sym_DQUOTE, 687, 1, tcl_sym_escaped_character, 689,
      1, tcl_anon_sym_LBRACK, 524, 2, tcl_sym__concat_word, tcl_sym_braced_word, 398, 3,
      tcl_sym_variable_substitution, tcl_sym_quoted_word, tcl_sym_command_substitution]"

definition tcl_small_run_7122 :: "nat list" where
  "tcl_small_run_7122 =
    [8, 506, 1, tcl_anon_sym_DOLLAR, 510, 1, tcl_anon_sym_DQUOTE, 512, 1, tcl_anon_sym_LBRACK,
      691, 1, tcl_sym_simple_word, 695, 1, tcl_sym_escaped_character, 556, 1,
      tcl_sym__concat_word, 693, 3, tcl_anon_sym_LF, tcl_anon_sym_SEMI, tcl_anon_sym_RBRACE, 312,
      3, tcl_sym_variable_substitution, tcl_sym_quoted_word, tcl_sym_command_substitution]"

definition tcl_small_run_7151 :: "nat list" where
  "tcl_small_run_7151 =
    [9, 531, 1, tcl_anon_sym_DOLLAR, 535, 1, tcl_anon_sym_DQUOTE, 539, 1, tcl_anon_sym_LBRACK,
      669, 1, tcl_sym_simple_word, 673, 1, tcl_anon_sym_LBRACE, 675, 1,
      tcl_sym_escaped_character, 697, 1, tcl_sym_unpack, 701, 2, tcl_sym__concat_word,
      tcl_sym_braced_word, 595, 3, tcl_sym_variable_substitution, tcl_sym_quoted_word,
      tcl_sym_command_substitution]"

definition tcl_small_run_7182 :: "nat list" where
  "tcl_small_run_7182 =
    [9, 167, 1, tcl_sym_simple_word, 187, 1, tcl_anon_sym_DOLLAR, 189, 1, tcl_anon_sym_LBRACE,
      203, 1, tcl_anon_sym_DQUOTE, 205, 1, tcl_sym_escaped_character, 207, 1,
      tcl_anon_sym_LBRACK, 699, 1, tcl_sym_unpack, 289, 2, tcl_sym__concat_word,
      tcl_sym_braced_word, 304, 3, tcl_sym_variable_substitution, tcl_sym_quoted_word,
      tcl_sym_command_substitution]"

definition tcl_small_run_7213 :: "nat list" where
  "tcl_small_run_7213 =
    [5, 701, 1, tcl_anon_sym_COLON_COLON, 151, 1, tcl_aux_sym__id_immediate_repeat1, 616, 1,
      tcl_sym__ns_delim, 236, 3, tcl_sym__concat, tcl_anon_sym_LF, tcl_anon_sym_LPAREN, 238, 6,
      tcl_anon_sym_SEMI, tcl_anon_sym_on, tcl_anon_sym_finally, tcl_anon_sym_RBRACE,
      tcl_anon_sym_elseif, tcl_anon_sym_else]"

definition tcl_small_run_7236 :: "nat list" where
  "tcl_small_run_7236 =
    [9, 531, 1, tcl_anon_sym_DOLLAR, 535, 1, tcl_anon_sym_DQUOTE, 539, 1, tcl_anon_sym_LBRACK,
      669, 1, tcl_sym_simple_word, 673, 1, tcl_anon_sym_LBRACE, 675, 1,
      tcl_sym_escaped_character, 704, 1, tcl_sym_unpack, 706, 2, tcl_sym__concat_word,
      tcl_sym_braced_word, 595, 3, tcl_sym_variable_substitution, tcl_sym_quoted_word,
      tcl_sym_command_substitution]"

definition tcl_small_run_7267 :: "nat list" where
  "tcl_small_run_7267 =
    [9, 531, 1, tcl_anon_sym_DOLLAR, 535, 1, tcl_anon_sym_DQUOTE, 539, 1, tcl_anon_sym_LBRACK,
      669, 1, tcl_sym_simple_word, 673, 1, tcl_anon_sym_LBRACE, 675, 1,
      tcl_sym_escaped_character, 706, 1, tcl_sym_unpack, 552, 2, tcl_sym__concat_word,
      tcl_sym_braced_word, 595, 3, tcl_sym_variable_substitution, tcl_sym_quoted_word,
      tcl_sym_command_substitution]"

definition tcl_small_run_7298 :: "nat list" where
  "tcl_small_run_7298 =
    [9, 677, 1, tcl_sym_simple_word, 681, 1, tcl_anon_sym_DOLLAR, 683, 1, tcl_anon_sym_LBRACE,
      685, 1, tcl_anon_sym_DQUOTE, 687, 1, tcl_sym_escaped_character, 689, 1,
      tcl_anon_sym_LBRACK, 708, 1, tcl_sym_unpack, 449, 2, tcl_sym__concat_word,
      tcl_sym_braced_word, 398, 3, tcl_sym_variable_substitution, tcl_sym_quoted_word,
      tcl_sym_command_substitution]"

definition tcl_small_run_7329 :: "nat list" where
  "tcl_small_run_7329 =
    [9, 506, 1, tcl_anon_sym_DOLLAR, 510, 1, tcl_anon_sym_DQUOTE, 512, 1, tcl_anon_sym_LBRACK,
      691, 1, tcl_sym_simple_word, 710, 1, tcl_sym_unpack, 712, 1, tcl_anon_sym_LBRACE, 714, 1,
      tcl_sym_escaped_character, 547, 2, tcl_sym__concat_word, tcl_sym_braced_word, 312, 3,
      tcl_sym_variable_substitution, tcl_sym_quoted_word, tcl_sym_command_substitution]"

definition tcl_small_run_7360 :: "nat list" where
  "tcl_small_run_7360 =
    [8, 716, 1, tcl_sym_simple_word, 718, 1, tcl_anon_sym_DOLLAR, 720, 1, tcl_anon_sym_LBRACE,
      724, 1, tcl_anon_sym_DQUOTE, 726, 1, tcl_anon_sym_LBRACK, 174, 1, tcl_sym_expr, 722, 2,
      tcl_sym_number, tcl_sym__boolean, 434, 4, tcl_sym_variable_substitution,
      tcl_sym__expr_atom_no_brace, tcl_sym_quoted_word, tcl_sym_command_substitution]"

definition tcl_small_run_7389 :: "nat list" where
  "tcl_small_run_7389 =
    [9, 531, 1, tcl_anon_sym_DOLLAR, 535, 1, tcl_anon_sym_DQUOTE, 539, 1, tcl_anon_sym_LBRACK,
      669, 1, tcl_sym_simple_word, 673, 1, tcl_anon_sym_LBRACE, 675, 1,
      tcl_sym_escaped_character, 728, 1, tcl_sym_unpack, 627, 2, tcl_sym__concat_word,
      tcl_sym_braced_word, 595, 3, tcl_sym_variable_substitution, tcl_sym_quoted_word,
      tcl_sym_command_substitution]"

definition tcl_small_run_7420 :: "nat list" where
  "tcl_small_run_7420 =
    [9, 531, 1, tcl_anon_sym_DOLLAR, 535, 1, tcl_anon_sym_DQUOTE, 539, 1, tcl_anon_sym_LBRACK,
      669, 1, tcl_sym_simple_word, 673, 1, tcl_anon_sym_LBRACE, 675, 1,
      tcl_sym_escaped_character, 730, 1, tcl_sym_unpack, 643, 2, tcl_sym__concat_word,
      tcl_sym_braced_word, 595, 3, tcl_sym_variable_substitution, tcl_sym_quoted_word,
      tcl_sym_command_substitution]"

definition tcl_small_run_7451 :: "nat list" where
  "tcl_small_run_7451 =
    [3, 732, 1, tcl_sym__concat, 159, 1, tcl_aux_sym__concat_word_repeat1, 616, 10,
      tcl_anon_sym_LF, tcl_anon_sym_SEMI, tcl_sym_unpack, tcl_anon_sym_DOLLAR,
      tcl_anon_sym_LBRACE, tcl_anon_sym_RBRACE, tcl_anon_sym_DQUOTE, tcl_sym_escaped_character,
      tcl_anon_sym_LBRACK, tcl_sym_simple_word]"

definition tcl_small_run_7470 :: "nat list" where
  "tcl_small_run_7470 =
    [9, 531, 1, tcl_anon_sym_DOLLAR, 535, 1, tcl_anon_sym_DQUOTE, 539, 1, tcl_anon_sym_LBRACK,
      669, 1, tcl_sym_simple_word, 673, 1, tcl_anon_sym_LBRACE, 675, 1,
      tcl_sym_escaped_character, 735, 1, tcl_sym_unpack, 693, 2, tcl_sym__concat_word,
      tcl_sym_braced_word, 595, 3, tcl_sym_variable_substitution, tcl_sym_quoted_word,
      tcl_sym_command_substitution]"

definition tcl_small_run_7501 :: "nat list" where
  "tcl_small_run_7501 =
    [3, 525, 1, tcl_sym__concat, 159, 1, tcl_aux_sym__concat_word_repeat1, 737, 10,
      tcl_anon_sym_LF, tcl_anon_sym_SEMI, tcl_sym_unpack, tcl_anon_sym_DOLLAR,
      tcl_anon_sym_LBRACE, tcl_anon_sym_RBRACE, tcl_anon_sym_DQUOTE, tcl_sym_escaped_character,
      tcl_anon_sym_LBRACK, tcl_sym_simple_word]"

definition tcl_small_run_7520 :: "nat list" where
  "tcl_small_run_7520 =
    [6, 739, 1, tcl_anon_sym_LPAREN, 741, 1, tcl_sym_escaped_character, 743, 1, tcl_sym__concat,
      290, 1, tcl_aux_sym__concat_word_repeat1, 292, 1, tcl_sym_array_index, 521, 7,
      tcl_sym_unpack, tcl_anon_sym_DOLLAR, tcl_anon_sym_LBRACE, tcl_anon_sym_DQUOTE,
      tcl_anon_sym_LBRACK, tcl_anon_sym_RBRACK, tcl_sym_simple_word]"

definition tcl_small_run_7545 :: "nat list" where
  "tcl_small_run_7545 =
    [8, 716, 1, tcl_sym_simple_word, 718, 1, tcl_anon_sym_DOLLAR, 720, 1, tcl_anon_sym_LBRACE,
      724, 1, tcl_anon_sym_DQUOTE, 726, 1, tcl_anon_sym_LBRACK, 192, 1, tcl_sym_expr, 722, 2,
      tcl_sym_number, tcl_sym__boolean, 434, 4, tcl_sym_variable_substitution,
      tcl_sym__expr_atom_no_brace, tcl_sym_quoted_word, tcl_sym_command_substitution]"

definition tcl_small_run_7574 :: "nat list" where
  "tcl_small_run_7574 =
    [9, 677, 1, tcl_sym_simple_word, 681, 1, tcl_anon_sym_DOLLAR, 683, 1, tcl_anon_sym_LBRACE,
      685, 1, tcl_anon_sym_DQUOTE, 687, 1, tcl_sym_escaped_character, 689, 1,
      tcl_anon_sym_LBRACK, 745, 1, tcl_sym_unpack, 541, 2, tcl_sym__concat_word,
      tcl_sym_braced_word, 398, 3, tcl_sym_variable_substitution, tcl_sym_quoted_word,
      tcl_sym_command_substitution]"

definition tcl_small_run_7605 :: "nat list" where
  "tcl_small_run_7605 =
    [9, 677, 1, tcl_sym_simple_word, 681, 1, tcl_anon_sym_DOLLAR, 683, 1, tcl_anon_sym_LBRACE,
      685, 1, tcl_anon_sym_DQUOTE, 687, 1, tcl_sym_escaped_character, 689, 1,
      tcl_anon_sym_LBRACK, 747, 1, tcl_sym_unpack, 542, 2, tcl_sym__concat_word,
      tcl_sym_braced_word, 398, 3, tcl_sym_variable_substitution, tcl_sym_quoted_word,
      tcl_sym_command_substitution]"

definition tcl_small_run_7636 :: "nat list" where
  "tcl_small_run_7636 =
    [5, 749, 1, tcl_anon_sym_COLON_COLON, 201, 1, tcl_aux_sym__id_immediate_repeat1, 616, 1,
      tcl_sym__ns_delim, 240, 3, tcl_sym__concat, tcl_anon_sym_LF, tcl_anon_sym_LPAREN, 242, 6,
      tcl_anon_sym_SEMI, tcl_anon_sym_on, tcl_anon_sym_finally, tcl_anon_sym_RBRACE,
      tcl_anon_sym_elseif, tcl_anon_sym_else]"

definition tcl_small_run_7659 :: "nat list" where
  "tcl_small_run_7659 =
    [9, 506, 1, tcl_anon_sym_DOLLAR, 510, 1, tcl_anon_sym_DQUOTE, 512, 1, tcl_anon_sym_LBRACK,
      691, 1, tcl_sym_simple_word, 712, 1, tcl_anon_sym_LBRACE, 714, 1,
      tcl_sym_escaped_character, 751, 1, tcl_sym_unpack, 560, 2, tcl_sym__concat_word,
      tcl_sym_braced_word, 312, 3, tcl_sym_variable_substitution, tcl_sym_quoted_word,
      tcl_sym_command_substitution]"

definition tcl_small_run_7690 :: "nat list" where
  "tcl_small_run_7690 =
    [9, 677, 1, tcl_sym_simple_word, 681, 1, tcl_anon_sym_DOLLAR, 683, 1, tcl_anon_sym_LBRACE,
      685, 1, tcl_anon_sym_DQUOTE, 687, 1, tcl_sym_escaped_character, 689, 1,
      tcl_anon_sym_LBRACK, 753, 1, tcl_sym_unpack, 552, 2, tcl_sym__concat_word,
      tcl_sym_braced_word, 398, 3, tcl_sym_variable_substitution, tcl_sym_quoted_word,
      tcl_sym_command_substitution]"

definition tcl_small_run_7721 :: "nat list" where
  "tcl_small_run_7721 =
    [9, 506, 1, tcl_anon_sym_DOLLAR, 510, 1, tcl_anon_sym_DQUOTE, 512, 1, tcl_anon_sym_LBRACK,
      691, 1, tcl_sym_simple_word, 712, 1, tcl_anon_sym_LBRACE, 714, 1,
      tcl_sym_escaped_character, 755, 1, tcl_sym_unpack, 550, 2, tcl_sym__concat_word,
      tcl_sym_braced_word, 312, 3, tcl_sym_variable_substitution, tcl_sym_quoted_word,
      tcl_sym_command_substitution]"

definition tcl_small_run_7752 :: "nat list" where
  "tcl_small_run_7752 =
    [9, 506, 1, tcl_anon_sym_DOLLAR, 510, 1, tcl_anon_sym_DQUOTE, 512, 1, tcl_anon_sym_LBRACK,
      691, 1, tcl_sym_simple_word, 712, 1, tcl_anon_sym_LBRACE, 714, 1,
      tcl_sym_escaped_character, 757, 1, tcl_sym_unpack, 549, 2, tcl_sym__concat_word,
      tcl_sym_braced_word, 312, 3, tcl_sym_variable_substitution, tcl_sym_quoted_word,
      tcl_sym_command_substitution]"

definition tcl_small_run_7783 :: "nat list" where
  "tcl_small_run_7783 =
    [5, 749, 1, tcl_anon_sym_COLON_COLON, 191, 1, tcl_aux_sym__id_immediate_repeat1, 616, 1,
      tcl_sym__ns_delim, 244, 3, tcl_sym__concat, tcl_anon_sym_LF, tcl_anon_sym_LPAREN, 246, 6,
      tcl_anon_sym_SEMI, tcl_anon_sym_on, tcl_anon_sym_finally, tcl_anon_sym_RBRACE,
      tcl_anon_sym_elseif, tcl_anon_sym_else]"

definition tcl_small_run_7806 :: "nat list" where
  "tcl_small_run_7806 =
    [8, 759, 1, tcl_sym_simple_word, 761, 1, tcl_anon_sym_DOLLAR, 763, 1, tcl_anon_sym_LBRACE,
      767, 1, tcl_anon_sym_DQUOTE, 769, 1, tcl_anon_sym_LBRACK, 571, 1, tcl_sym_expr, 765, 2,
      tcl_sym_number, tcl_sym__boolean, 540, 4, tcl_sym_variable_substitution,
      tcl_sym__expr_atom_no_brace, tcl_sym_quoted_word, tcl_sym_command_substitution]"

definition tcl_small_run_7835 :: "nat list" where
  "tcl_small_run_7835 =
    [9, 506, 1, tcl_anon_sym_DOLLAR, 510, 1, tcl_anon_sym_DQUOTE, 512, 1, tcl_anon_sym_LBRACK,
      691, 1, tcl_sym_simple_word, 712, 1, tcl_anon_sym_LBRACE, 714, 1,
      tcl_sym_escaped_character, 771, 1, tcl_sym_unpack, 511, 2, tcl_sym__concat_word,
      tcl_sym_braced_word, 312, 3, tcl_sym_variable_substitution, tcl_sym_quoted_word,
      tcl_sym_command_substitution]"

definition tcl_small_run_7866 :: "nat list" where
  "tcl_small_run_7866 =
    [9, 506, 1, tcl_anon_sym_DOLLAR, 510, 1, tcl_anon_sym_DQUOTE, 512, 1, tcl_anon_sym_LBRACK,
      691, 1, tcl_sym_simple_word, 712, 1, tcl_anon_sym_LBRACE, 714, 1,
      tcl_sym_escaped_character, 773, 1, tcl_sym_unpack, 482, 2, tcl_sym__concat_word,
      tcl_sym_braced_word, 312, 3, tcl_sym_variable_substitution, tcl_sym_quoted_word,
      tcl_sym_command_substitution]"

definition tcl_small_run_7897 :: "nat list" where
  "tcl_small_run_7897 =
    [9, 506, 1, tcl_anon_sym_DOLLAR, 510, 1, tcl_anon_sym_DQUOTE, 512, 1, tcl_anon_sym_LBRACK,
      691, 1, tcl_sym_simple_word, 712, 1, tcl_anon_sym_LBRACE, 714, 1,
      tcl_sym_escaped_character, 775, 1, tcl_sym_unpack, 583, 2, tcl_sym__concat_word,
      tcl_sym_braced_word, 312, 3, tcl_sym_variable_substitution, tcl_sym_quoted_word,
      tcl_sym_command_substitution]"

definition tcl_small_run_7928 :: "nat list" where
  "tcl_small_run_7928 =
    [8, 716, 1, tcl_sym_simple_word, 718, 1, tcl_anon_sym_DOLLAR, 720, 1, tcl_anon_sym_LBRACE,
      724, 1, tcl_anon_sym_DQUOTE, 726, 1, tcl_anon_sym_LBRACK, 177, 1, tcl_sym_expr, 722, 2,
      tcl_sym_number, tcl_sym__boolean, 434, 4, tcl_sym_variable_substitution,
      tcl_sym__expr_atom_no_brace, tcl_sym_quoted_word, tcl_sym_command_substitution]"

definition tcl_small_run_7957 :: "nat list" where
  "tcl_small_run_7957 =
    [9, 506, 1, tcl_anon_sym_DOLLAR, 510, 1, tcl_anon_sym_DQUOTE, 512, 1, tcl_anon_sym_LBRACK,
      691, 1, tcl_sym_simple_word, 712, 1, tcl_anon_sym_LBRACE, 714, 1,
      tcl_sym_escaped_character, 777, 1, tcl_sym_unpack, 383, 2, tcl_sym__concat_word,
      tcl_sym_braced_word, 312, 3, tcl_sym_variable_substitution, tcl_sym_quoted_word,
      tcl_sym_command_substitution]"

definition tcl_small_run_7988 :: "nat list" where
  "tcl_small_run_7988 =
    [8, 506, 1, tcl_anon_sym_DOLLAR, 510, 1, tcl_anon_sym_DQUOTE, 512, 1, tcl_anon_sym_LBRACK,
      691, 1, tcl_sym_simple_word, 695, 1, tcl_sym_escaped_character, 551, 1,
      tcl_sym__concat_word, 779, 3, tcl_anon_sym_LF, tcl_anon_sym_SEMI, tcl_anon_sym_RBRACE, 312,
      3, tcl_sym_variable_substitution, tcl_sym_quoted_word, tcl_sym_command_substitution]"

definition tcl_small_run_8017 :: "nat list" where
  "tcl_small_run_8017 =
    [9, 506, 1, tcl_anon_sym_DOLLAR, 510, 1, tcl_anon_sym_DQUOTE, 512, 1, tcl_anon_sym_LBRACK,
      691, 1, tcl_sym_simple_word, 712, 1, tcl_anon_sym_LBRACE, 714, 1,
      tcl_sym_escaped_character, 781, 1, tcl_sym_unpack, 470, 2, tcl_sym__concat_word,
      tcl_sym_braced_word, 312, 3, tcl_sym_variable_substitution, tcl_sym_quoted_word,
      tcl_sym_command_substitution]"

definition tcl_small_run_8048 :: "nat list" where
  "tcl_small_run_8048 =
    [9, 5, 1, tcl_sym_simple_word, 27, 1, tcl_anon_sym_DOLLAR, 29, 1, tcl_anon_sym_LBRACE, 43, 1,
      tcl_anon_sym_DQUOTE, 47, 1, tcl_anon_sym_LBRACK, 149, 1, tcl_sym_escaped_character, 783, 1,
      tcl_sym_unpack, 178, 2, tcl_sym__concat_word, tcl_sym_braced_word, 198, 3,
      tcl_sym_variable_substitution, tcl_sym_quoted_word, tcl_sym_command_substitution]"

definition tcl_small_run_8079 :: "nat list" where
  "tcl_small_run_8079 =
    [5, 785, 1, tcl_anon_sym_COLON_COLON, 188, 1, tcl_aux_sym__id_immediate_repeat1, 646, 1,
      tcl_sym__ns_delim, 240, 3, tcl_sym__concat, tcl_anon_sym_LPAREN, tcl_sym_escaped_character,
      242, 6, tcl_anon_sym_DOLLAR, tcl_anon_sym_LBRACE, tcl_anon_sym_RBRACE, tcl_anon_sym_DQUOTE,
      tcl_anon_sym_LBRACK, tcl_sym_simple_word]"

definition tcl_small_run_8102 :: "nat list" where
  "tcl_small_run_8102 =
    [3, 525, 1, tcl_sym__concat, 159, 1, tcl_aux_sym__concat_word_repeat1, 787, 10,
      tcl_anon_sym_LF, tcl_anon_sym_SEMI, tcl_sym_unpack, tcl_anon_sym_DOLLAR,
      tcl_anon_sym_LBRACE, tcl_anon_sym_RBRACE, tcl_anon_sym_DQUOTE, tcl_sym_escaped_character,
      tcl_anon_sym_LBRACK, tcl_sym_simple_word]"

definition tcl_small_run_8121 :: "nat list" where
  "tcl_small_run_8121 =
    [3, 525, 1, tcl_sym__concat, 161, 1, tcl_aux_sym__concat_word_repeat1, 787, 10,
      tcl_anon_sym_LF, tcl_anon_sym_SEMI, tcl_sym_unpack, tcl_anon_sym_DOLLAR,
      tcl_anon_sym_LBRACE, tcl_anon_sym_RBRACE, tcl_anon_sym_DQUOTE, tcl_sym_escaped_character,
      tcl_anon_sym_LBRACK, tcl_sym_simple_word]"

definition tcl_small_run_8140 :: "nat list" where
  "tcl_small_run_8140 =
    [8, 716, 1, tcl_sym_simple_word, 718, 1, tcl_anon_sym_DOLLAR, 720, 1, tcl_anon_sym_LBRACE,
      724, 1, tcl_anon_sym_DQUOTE, 726, 1, tcl_anon_sym_LBRACK, 152, 1, tcl_sym_expr, 722, 2,
      tcl_sym_number, tcl_sym__boolean, 434, 4, tcl_sym_variable_substitution,
      tcl_sym__expr_atom_no_brace, tcl_sym_quoted_word, tcl_sym_command_substitution]"

definition tcl_small_run_8169 :: "nat list" where
  "tcl_small_run_8169 =
    [8, 716, 1, tcl_sym_simple_word, 718, 1, tcl_anon_sym_DOLLAR, 720, 1, tcl_anon_sym_LBRACE,
      724, 1, tcl_anon_sym_DQUOTE, 726, 1, tcl_anon_sym_LBRACK, 153, 1, tcl_sym_expr, 722, 2,
      tcl_sym_number, tcl_sym__boolean, 434, 4, tcl_sym_variable_substitution,
      tcl_sym__expr_atom_no_brace, tcl_sym_quoted_word, tcl_sym_command_substitution]"

definition tcl_small_run_8198 :: "nat list" where
  "tcl_small_run_8198 =
    [8, 716, 1, tcl_sym_simple_word, 718, 1, tcl_anon_sym_DOLLAR, 720, 1, tcl_anon_sym_LBRACE,
      724, 1, tcl_anon_sym_DQUOTE, 726, 1, tcl_anon_sym_LBRACK, 154, 1, tcl_sym_expr, 722, 2,
      tcl_sym_number, tcl_sym__boolean, 434, 4, tcl_sym_variable_substitution,
      tcl_sym__expr_atom_no_brace, tcl_sym_quoted_word, tcl_sym_command_substitution]"

definition tcl_small_run_8227 :: "nat list" where
  "tcl_small_run_8227 =
    [9, 506, 1, tcl_anon_sym_DOLLAR, 510, 1, tcl_anon_sym_DQUOTE, 512, 1, tcl_anon_sym_LBRACK,
      691, 1, tcl_sym_simple_word, 712, 1, tcl_anon_sym_LBRACE, 714, 1,
      tcl_sym_escaped_character, 789, 1, tcl_sym_unpack, 456, 2, tcl_sym__concat_word,
      tcl_sym_braced_word, 312, 3, tcl_sym_variable_substitution, tcl_sym_quoted_word,
      tcl_sym_command_substitution]"

definition tcl_small_run_8258 :: "nat list" where
  "tcl_small_run_8258 =
    [5, 785, 1, tcl_anon_sym_COLON_COLON, 197, 1, tcl_aux_sym__id_immediate_repeat1, 646, 1,
      tcl_sym__ns_delim, 244, 3, tcl_sym__concat, tcl_anon_sym_LPAREN, tcl_sym_escaped_character,
      246, 6, tcl_anon_sym_DOLLAR, tcl_anon_sym_LBRACE, tcl_anon_sym_RBRACE, tcl_anon_sym_DQUOTE,
      tcl_anon_sym_LBRACK, tcl_sym_simple_word]"

definition tcl_small_run_8281 :: "nat list" where
  "tcl_small_run_8281 =
    [5, 785, 1, tcl_anon_sym_COLON_COLON, 194, 1, tcl_aux_sym__id_immediate_repeat1, 646, 1,
      tcl_sym__ns_delim, 244, 3, tcl_sym__concat, tcl_anon_sym_LPAREN, tcl_sym_escaped_character,
      246, 6, tcl_anon_sym_DOLLAR, tcl_anon_sym_LBRACE, tcl_anon_sym_RBRACE, tcl_anon_sym_DQUOTE,
      tcl_anon_sym_LBRACK, tcl_sym_simple_word]"

definition tcl_small_run_8304 :: "nat list" where
  "tcl_small_run_8304 =
    [8, 716, 1, tcl_sym_simple_word, 718, 1, tcl_anon_sym_DOLLAR, 720, 1, tcl_anon_sym_LBRACE,
      724, 1, tcl_anon_sym_DQUOTE, 726, 1, tcl_anon_sym_LBRACK, 168, 1, tcl_sym_expr, 722, 2,
      tcl_sym_number, tcl_sym__boolean, 434, 4, tcl_sym_variable_substitution,
      tcl_sym__expr_atom_no_brace, tcl_sym_quoted_word, tcl_sym_command_substitution]"

definition tcl_small_run_8333 :: "nat list" where
  "tcl_small_run_8333 =
    [5, 749, 1, tcl_anon_sym_COLON_COLON, 151, 1, tcl_aux_sym__id_immediate_repeat1, 616, 1,
      tcl_sym__ns_delim, 229, 3, tcl_sym__concat, tcl_anon_sym_LF, tcl_anon_sym_LPAREN, 231, 6,
      tcl_anon_sym_SEMI, tcl_anon_sym_on, tcl_anon_sym_finally, tcl_anon_sym_RBRACE,
      tcl_anon_sym_elseif, tcl_anon_sym_else]"

definition tcl_small_run_8356 :: "nat list" where
  "tcl_small_run_8356 =
    [9, 506, 1, tcl_anon_sym_DOLLAR, 510, 1, tcl_anon_sym_DQUOTE, 512, 1, tcl_anon_sym_LBRACK,
      691, 1, tcl_sym_simple_word, 712, 1, tcl_anon_sym_LBRACE, 714, 1,
      tcl_sym_escaped_character, 791, 1, tcl_sym_unpack, 563, 2, tcl_sym__concat_word,
      tcl_sym_braced_word, 312, 3, tcl_sym_variable_substitution, tcl_sym_quoted_word,
      tcl_sym_command_substitution]"

definition tcl_small_run_8387 :: "nat list" where
  "tcl_small_run_8387 =
    [9, 535, 1, tcl_anon_sym_DQUOTE, 539, 1, tcl_anon_sym_LBRACK, 673, 1, tcl_anon_sym_LBRACE,
      793, 1, tcl_sym_simple_word, 795, 1, tcl_sym_unpack, 797, 1, tcl_anon_sym_DOLLAR, 799, 1,
      tcl_sym_escaped_character, 557, 2, tcl_sym__concat_word, tcl_sym_braced_word, 521, 3,
      tcl_sym_variable_substitution, tcl_sym_quoted_word, tcl_sym_command_substitution]"

definition tcl_small_run_8418 :: "nat list" where
  "tcl_small_run_8418 =
    [5, 785, 1, tcl_anon_sym_COLON_COLON, 197, 1, tcl_aux_sym__id_immediate_repeat1, 646, 1,
      tcl_sym__ns_delim, 229, 3, tcl_sym__concat, tcl_anon_sym_LPAREN, tcl_sym_escaped_character,
      231, 6, tcl_anon_sym_DOLLAR, tcl_anon_sym_LBRACE, tcl_anon_sym_RBRACE, tcl_anon_sym_DQUOTE,
      tcl_anon_sym_LBRACK, tcl_sym_simple_word]"

definition tcl_small_run_8441 :: "nat list" where
  "tcl_small_run_8441 =
    [9, 535, 1, tcl_anon_sym_DQUOTE, 539, 1, tcl_anon_sym_LBRACK, 673, 1, tcl_anon_sym_LBRACE,
      793, 1, tcl_sym_simple_word, 797, 1, tcl_anon_sym_DOLLAR, 799, 1,
      tcl_sym_escaped_character, 801, 1, tcl_sym_unpack, 572, 2, tcl_sym__concat_word,
      tcl_sym_braced_word, 521, 3, tcl_sym_variable_substitution, tcl_sym_quoted_word,
      tcl_sym_command_substitution]"

definition tcl_small_run_8472 :: "nat list" where
  "tcl_small_run_8472 =
    [9, 527, 1, tcl_sym_simple_word, 531, 1, tcl_anon_sym_DOLLAR, 533, 1, tcl_anon_sym_LBRACE,
      535, 1, tcl_anon_sym_DQUOTE, 537, 1, tcl_sym_escaped_character, 539, 1,
      tcl_anon_sym_LBRACK, 564, 1, tcl_anon_sym_RBRACK, 686, 1, tcl_sym__word_simple, 514, 4,
      tcl_sym_variable_substitution, tcl_sym_braced_word_simple, tcl_sym_quoted_word,
      tcl_sym_command_substitution]"

definition tcl_small_run_8503 :: "nat list" where
  "tcl_small_run_8503 =
    [5, 803, 1, tcl_anon_sym_COLON_COLON, 197, 1, tcl_aux_sym__id_immediate_repeat1, 646, 1,
      tcl_sym__ns_delim, 236, 3, tcl_sym__concat, tcl_anon_sym_LPAREN, tcl_sym_escaped_character,
      238, 6, tcl_anon_sym_DOLLAR, tcl_anon_sym_LBRACE, tcl_anon_sym_RBRACE, tcl_anon_sym_DQUOTE,
      tcl_anon_sym_LBRACK, tcl_sym_simple_word]"

definition tcl_small_run_8526 :: "nat list" where
  "tcl_small_run_8526 =
    [3, 525, 1, tcl_sym__concat, 182, 1, tcl_aux_sym__concat_word_repeat1, 521, 10,
      tcl_anon_sym_LF, tcl_anon_sym_SEMI, tcl_sym_unpack, tcl_anon_sym_DOLLAR,
      tcl_anon_sym_LBRACE, tcl_anon_sym_RBRACE, tcl_anon_sym_DQUOTE, tcl_sym_escaped_character,
      tcl_anon_sym_LBRACK, tcl_sym_simple_word]"

definition tcl_small_run_8545 :: "nat list" where
  "tcl_small_run_8545 =
    [8, 363, 1, tcl_sym_simple_word, 806, 1, tcl_anon_sym_DOLLAR, 808, 1, tcl_anon_sym_LBRACE,
      812, 1, tcl_anon_sym_DQUOTE, 814, 1, tcl_anon_sym_LBRACK, 699, 1, tcl_sym_expr, 810, 2,
      tcl_sym_number, tcl_sym__boolean, 671, 4, tcl_sym_variable_substitution,
      tcl_sym__expr_atom_no_brace, tcl_sym_quoted_word, tcl_sym_command_substitution]"

definition tcl_small_run_8574 :: "nat list" where
  "tcl_small_run_8574 =
    [9, 527, 1, tcl_sym_simple_word, 531, 1, tcl_anon_sym_DOLLAR, 533, 1, tcl_anon_sym_LBRACE,
      535, 1, tcl_anon_sym_DQUOTE, 537, 1, tcl_sym_escaped_character, 539, 1,
      tcl_anon_sym_LBRACK, 562, 1, tcl_anon_sym_RBRACK, 608, 1, tcl_sym__word_simple, 514, 4,
      tcl_sym_variable_substitution, tcl_sym_braced_word_simple, tcl_sym_quoted_word,
      tcl_sym_command_substitution]"

definition tcl_small_run_8605 :: "nat list" where
  "tcl_small_run_8605 =
    [5, 749, 1, tcl_anon_sym_COLON_COLON, 151, 1, tcl_aux_sym__id_immediate_repeat1, 616, 1,
      tcl_sym__ns_delim, 244, 3, tcl_sym__concat, tcl_anon_sym_LF, tcl_anon_sym_LPAREN, 246, 6,
      tcl_anon_sym_SEMI, tcl_anon_sym_on, tcl_anon_sym_finally, tcl_anon_sym_RBRACE,
      tcl_anon_sym_elseif, tcl_anon_sym_else]"

definition tcl_small_run_8628 :: "nat list" where
  "tcl_small_run_8628 =
    [8, 187, 1, tcl_anon_sym_DOLLAR, 203, 1, tcl_anon_sym_DQUOTE, 207, 1, tcl_anon_sym_LBRACK,
      816, 1, tcl_sym_simple_word, 818, 1, tcl_anon_sym_LBRACE, 820, 1,
      tcl_sym_escaped_character, 155, 1, tcl_sym__word_simple, 329, 4,
      tcl_sym_variable_substitution, tcl_sym_braced_word_simple, tcl_sym_quoted_word,
      tcl_sym_command_substitution]"

definition tcl_small_run_8656 :: "nat list" where
  "tcl_small_run_8656 =
    [8, 535, 1, tcl_anon_sym_DQUOTE, 539, 1, tcl_anon_sym_LBRACK, 673, 1, tcl_anon_sym_LBRACE,
      793, 1, tcl_sym_simple_word, 797, 1, tcl_anon_sym_DOLLAR, 799, 1,
      tcl_sym_escaped_character, 574, 2, tcl_sym__concat_word, tcl_sym_braced_word, 521, 3,
      tcl_sym_variable_substitution, tcl_sym_quoted_word, tcl_sym_command_substitution]"

definition tcl_small_run_8684 :: "nat list" where
  "tcl_small_run_8684 =
    [4, 739, 1, tcl_anon_sym_LPAREN, 331, 1, tcl_sym_array_index, 618, 2, tcl_sym__concat,
      tcl_sym_escaped_character, 616, 7, tcl_sym_unpack, tcl_anon_sym_DOLLAR,
      tcl_anon_sym_LBRACE, tcl_anon_sym_DQUOTE, tcl_anon_sym_LBRACK, tcl_anon_sym_RBRACK,
      tcl_sym_simple_word]"

definition tcl_small_run_8704 :: "nat list" where
  "tcl_small_run_8704 =
    [5, 822, 1, tcl_anon_sym_COLON_COLON, 205, 1, tcl_aux_sym__id_immediate_repeat1, 687, 1,
      tcl_sym__ns_delim, 236, 2, tcl_anon_sym_LPAREN, tcl_sym_escaped_character, 238, 6,
      tcl_sym_unpack, tcl_anon_sym_DOLLAR, tcl_anon_sym_LBRACE, tcl_anon_sym_DQUOTE,
      tcl_anon_sym_LBRACK, tcl_sym_simple_word]"

definition tcl_small_run_8726 :: "nat list" where
  "tcl_small_run_8726 =
    [8, 527, 1, tcl_sym_simple_word, 531, 1, tcl_anon_sym_DOLLAR, 533, 1, tcl_anon_sym_LBRACE,
      535, 1, tcl_anon_sym_DQUOTE, 537, 1, tcl_sym_escaped_character, 539, 1,
      tcl_anon_sym_LBRACK, 716, 1, tcl_sym__word_simple, 514, 4, tcl_sym_variable_substitution,
      tcl_sym_braced_word_simple, tcl_sym_quoted_word, tcl_sym_command_substitution]"

definition tcl_small_run_8754 :: "nat list" where
  "tcl_small_run_8754 =
    [8, 506, 1, tcl_anon_sym_DOLLAR, 510, 1, tcl_anon_sym_DQUOTE, 512, 1, tcl_anon_sym_LBRACK,
      691, 1, tcl_sym_simple_word, 712, 1, tcl_anon_sym_LBRACE, 714, 1,
      tcl_sym_escaped_character, 457, 2, tcl_sym__concat_word, tcl_sym_braced_word, 312, 3,
      tcl_sym_variable_substitution, tcl_sym_quoted_word, tcl_sym_command_substitution]"

definition tcl_small_run_8782 :: "nat list" where
  "tcl_small_run_8782 =
    [2, 278, 1, tcl_sym__concat, 280, 10, tcl_anon_sym_LF, tcl_anon_sym_SEMI, tcl_sym_unpack,
      tcl_anon_sym_DOLLAR, tcl_anon_sym_LBRACE, tcl_anon_sym_RBRACE, tcl_anon_sym_DQUOTE,
      tcl_sym_escaped_character, tcl_anon_sym_LBRACK, tcl_sym_simple_word]"

definition tcl_small_run_8798 :: "nat list" where
  "tcl_small_run_8798 =
    [8, 535, 1, tcl_anon_sym_DQUOTE, 539, 1, tcl_anon_sym_LBRACK, 673, 1, tcl_anon_sym_LBRACE,
      793, 1, tcl_sym_simple_word, 797, 1, tcl_anon_sym_DOLLAR, 799, 1,
      tcl_sym_escaped_character, 559, 2, tcl_sym__concat_word, tcl_sym_braced_word, 521, 3,
      tcl_sym_variable_substitution, tcl_sym_quoted_word, tcl_sym_command_substitution]"

definition tcl_small_run_8826 :: "nat list" where
  "tcl_small_run_8826 =
    [8, 506, 1, tcl_anon_sym_DOLLAR, 510, 1, tcl_anon_sym_DQUOTE, 512, 1, tcl_anon_sym_LBRACK,
      691, 1, tcl_sym_simple_word, 712, 1, tcl_anon_sym_LBRACE, 714, 1,
      tcl_sym_escaped_character, 586, 2, tcl_sym__concat_word, tcl_sym_braced_word, 312, 3,
      tcl_sym_variable_substitution, tcl_sym_quoted_word, tcl_sym_command_substitution]"

definition tcl_small_run_8854 :: "nat list" where
  "tcl_small_run_8854 =
    [2, 266, 1, tcl_sym__concat, 268, 10, tcl_anon_sym_LF, tcl_anon_sym_SEMI, tcl_sym_unpack,
      tcl_anon_sym_DOLLAR, tcl_anon_sym_LBRACE, tcl_anon_sym_RBRACE, tcl_anon_sym_DQUOTE,
      tcl_sym_escaped_character, tcl_anon_sym_LBRACK, tcl_sym_simple_word]"

definition tcl_small_run_8870 :: "nat list" where
  "tcl_small_run_8870 =
    [8, 506, 1, tcl_anon_sym_DOLLAR, 510, 1, tcl_anon_sym_DQUOTE, 512, 1, tcl_anon_sym_LBRACK,
      691, 1, tcl_sym_simple_word, 712, 1, tcl_anon_sym_LBRACE, 714, 1,
      tcl_sym_escaped_character, 459, 2, tcl_sym__concat_word, tcl_sym_braced_word, 312, 3,
      tcl_sym_variable_substitution, tcl_sym_quoted_word, tcl_sym_command_substitution]"

definition tcl_small_run_8898 :: "nat list" where
  "tcl_small_run_8898 =
    [5, 242, 1, tcl_anon_sym_else, 825, 1, tcl_anon_sym_COLON_COLON, 214, 1,
      tcl_aux_sym__id_immediate_repeat1, 652, 1, tcl_sym__ns_delim, 240, 7, tcl_sym__concat,
      tcl_anon_sym_on, tcl_anon_sym_finally, tcl_anon_sym_LPAREN, tcl_anon_sym_RPAREN,
      tcl_anon_sym_elseif, tcl_anon_sym_RBRACK]"

definition tcl_small_run_8920 :: "nat list" where
  "tcl_small_run_8920 =
    [5, 246, 1, tcl_anon_sym_else, 825, 1, tcl_anon_sym_COLON_COLON, 222, 1,
      tcl_aux_sym__id_immediate_repeat1, 652, 1, tcl_sym__ns_delim, 244, 7, tcl_sym__concat,
      tcl_anon_sym_on, tcl_anon_sym_finally, tcl_anon_sym_LPAREN, tcl_anon_sym_RPAREN,
      tcl_anon_sym_elseif, tcl_anon_sym_RBRACK]"

definition tcl_small_run_8942 :: "nat list" where
  "tcl_small_run_8942 =
    [5, 246, 1, tcl_anon_sym_else, 825, 1, tcl_anon_sym_COLON_COLON, 217, 1,
      tcl_aux_sym__id_immediate_repeat1, 652, 1, tcl_sym__ns_delim, 244, 7, tcl_sym__concat,
      tcl_anon_sym_on, tcl_anon_sym_finally, tcl_anon_sym_LPAREN, tcl_anon_sym_RPAREN,
      tcl_anon_sym_elseif, tcl_anon_sym_RBRACK]"

definition tcl_small_run_8964 :: "nat list" where
  "tcl_small_run_8964 =
    [5, 827, 1, tcl_anon_sym_COLON_COLON, 216, 1, tcl_aux_sym__id_immediate_repeat1, 640, 1,
      tcl_sym__ns_delim, 236, 2, tcl_anon_sym_LPAREN, tcl_sym_escaped_character, 238, 6,
      tcl_anon_sym_DOLLAR, tcl_anon_sym_LBRACE, tcl_anon_sym_DQUOTE, tcl_anon_sym_LBRACK,
      tcl_anon_sym_RBRACK, tcl_sym_simple_word]"

definition tcl_small_run_8986 :: "nat list" where
  "tcl_small_run_8986 =
    [5, 231, 1, tcl_anon_sym_else, 825, 1, tcl_anon_sym_COLON_COLON, 222, 1,
      tcl_aux_sym__id_immediate_repeat1, 652, 1, tcl_sym__ns_delim, 229, 7, tcl_sym__concat,
      tcl_anon_sym_on, tcl_anon_sym_finally, tcl_anon_sym_LPAREN, tcl_anon_sym_RPAREN,
      tcl_anon_sym_elseif, tcl_anon_sym_RBRACK]"

definition tcl_small_run_9008 :: "nat list" where
  "tcl_small_run_9008 =
    [8, 506, 1, tcl_anon_sym_DOLLAR, 510, 1, tcl_anon_sym_DQUOTE, 512, 1, tcl_anon_sym_LBRACK,
      691, 1, tcl_sym_simple_word, 712, 1, tcl_anon_sym_LBRACE, 714, 1,
      tcl_sym_escaped_character, 360, 2, tcl_sym__concat_word, tcl_sym_braced_word, 312, 3,
      tcl_sym_variable_substitution, tcl_sym_quoted_word, tcl_sym_command_substitution]"

definition tcl_small_run_9036 :: "nat list" where
  "tcl_small_run_9036 =
    [8, 506, 1, tcl_anon_sym_DOLLAR, 510, 1, tcl_anon_sym_DQUOTE, 512, 1, tcl_anon_sym_LBRACK,
      691, 1, tcl_sym_simple_word, 712, 1, tcl_anon_sym_LBRACE, 714, 1,
      tcl_sym_escaped_character, 544, 2, tcl_sym__concat_word, tcl_sym_braced_word, 312, 3,
      tcl_sym_variable_substitution, tcl_sym_quoted_word, tcl_sym_command_substitution]"

definition tcl_small_run_9064 :: "nat list" where
  "tcl_small_run_9064 =
    [8, 5, 1, tcl_sym_simple_word, 27, 1, tcl_anon_sym_DOLLAR, 29, 1, tcl_anon_sym_LBRACE, 43, 1,
      tcl_anon_sym_DQUOTE, 47, 1, tcl_anon_sym_LBRACK, 149, 1, tcl_sym_escaped_character, 96, 2,
      tcl_sym__concat_word, tcl_sym_braced_word, 198, 3, tcl_sym_variable_substitution,
      tcl_sym_quoted_word, tcl_sym_command_substitution]"

definition tcl_small_run_9092 :: "nat list" where
  "tcl_small_run_9092 =
    [8, 506, 1, tcl_anon_sym_DOLLAR, 510, 1, tcl_anon_sym_DQUOTE, 512, 1, tcl_anon_sym_LBRACK,
      691, 1, tcl_sym_simple_word, 712, 1, tcl_anon_sym_LBRACE, 714, 1,
      tcl_sym_escaped_character, 470, 2, tcl_sym__concat_word, tcl_sym_braced_word, 312, 3,
      tcl_sym_variable_substitution, tcl_sym_quoted_word, tcl_sym_command_substitution]"

definition tcl_small_run_9120 :: "nat list" where
  "tcl_small_run_9120 =
    [5, 238, 1, tcl_anon_sym_else, 830, 1, tcl_anon_sym_COLON_COLON, 222, 1,
      tcl_aux_sym__id_immediate_repeat1, 652, 1, tcl_sym__ns_delim, 236, 7, tcl_sym__concat,
      tcl_anon_sym_on, tcl_anon_sym_finally, tcl_anon_sym_LPAREN, tcl_anon_sym_RPAREN,
      tcl_anon_sym_elseif, tcl_anon_sym_RBRACK]"

definition tcl_small_run_9142 :: "nat list" where
  "tcl_small_run_9142 =
    [8, 506, 1, tcl_anon_sym_DOLLAR, 510, 1, tcl_anon_sym_DQUOTE, 512, 1, tcl_anon_sym_LBRACK,
      691, 1, tcl_sym_simple_word, 712, 1, tcl_anon_sym_LBRACE, 714, 1,
      tcl_sym_escaped_character, 569, 2, tcl_sym__concat_word, tcl_sym_braced_word, 312, 3,
      tcl_sym_variable_substitution, tcl_sym_quoted_word, tcl_sym_command_substitution]"

definition tcl_small_run_9170 :: "nat list" where
  "tcl_small_run_9170 =
    [8, 506, 1, tcl_anon_sym_DOLLAR, 510, 1, tcl_anon_sym_DQUOTE, 512, 1, tcl_anon_sym_LBRACK,
      691, 1, tcl_sym_simple_word, 712, 1, tcl_anon_sym_LBRACE, 714, 1,
      tcl_sym_escaped_character, 486, 2, tcl_sym__concat_word, tcl_sym_braced_word, 312, 3,
      tcl_sym_variable_substitution, tcl_sym_quoted_word, tcl_sym_command_substitution]"

definition tcl_small_run_9198 :: "nat list" where
  "tcl_small_run_9198 =
    [8, 187, 1, tcl_anon_sym_DOLLAR, 203, 1, tcl_anon_sym_DQUOTE, 207, 1, tcl_anon_sym_LBRACK,
      604, 1, tcl_anon_sym_LBRACE, 833, 1, tcl_sym_simple_word, 835, 1,
      tcl_sym_escaped_character, 319, 1, tcl_sym__word_simple, 421, 4,
      tcl_sym_variable_substitution, tcl_sym_braced_word_simple, tcl_sym_quoted_word,
      tcl_sym_command_substitution]"

definition tcl_small_run_9226 :: "nat list" where
  "tcl_small_run_9226 =
    [8, 167, 1, tcl_sym_simple_word, 187, 1, tcl_anon_sym_DOLLAR, 203, 1, tcl_anon_sym_DQUOTE,
      205, 1, tcl_sym_escaped_character, 207, 1, tcl_anon_sym_LBRACK, 658, 1,
      tcl_anon_sym_RBRACK, 230, 2, tcl_sym__concat_word, tcl_aux_sym_regexp_repeat1, 304, 3,
      tcl_sym_variable_substitution, tcl_sym_quoted_word, tcl_sym_command_substitution]"

definition tcl_small_run_9254 :: "nat list" where
  "tcl_small_run_9254 =
    [6, 741, 1, tcl_anon_sym_LF, 837, 1, tcl_anon_sym_LPAREN, 839, 1, tcl_sym__concat, 308, 1,
      tcl_aux_sym__concat_word_repeat1, 315, 1, tcl_sym_array_index, 521, 6, tcl_anon_sym_SEMI,
      tcl_anon_sym_on, tcl_anon_sym_finally, tcl_anon_sym_RBRACE, tcl_anon_sym_elseif,
      tcl_anon_sym_else]"

definition tcl_small_run_9278 :: "nat list" where
  "tcl_small_run_9278 =
    [8, 167, 1, tcl_sym_simple_word, 187, 1, tcl_anon_sym_DOLLAR, 189, 1, tcl_anon_sym_LBRACE,
      203, 1, tcl_anon_sym_DQUOTE, 205, 1, tcl_sym_escaped_character, 207, 1,
      tcl_anon_sym_LBRACK, 102, 2, tcl_sym__concat_word, tcl_sym_braced_word, 304, 3,
      tcl_sym_variable_substitution, tcl_sym_quoted_word, tcl_sym_command_substitution]"

definition tcl_small_run_9306 :: "nat list" where
  "tcl_small_run_9306 =
    [8, 506, 1, tcl_anon_sym_DOLLAR, 510, 1, tcl_anon_sym_DQUOTE, 512, 1, tcl_anon_sym_LBRACK,
      691, 1, tcl_sym_simple_word, 712, 1, tcl_anon_sym_LBRACE, 714, 1,
      tcl_sym_escaped_character, 573, 2, tcl_sym__concat_word, tcl_sym_braced_word, 312, 3,
      tcl_sym_variable_substitution, tcl_sym_quoted_word, tcl_sym_command_substitution]"

definition tcl_small_run_9334 :: "nat list" where
  "tcl_small_run_9334 =
    [8, 167, 1, tcl_sym_simple_word, 187, 1, tcl_anon_sym_DOLLAR, 203, 1, tcl_anon_sym_DQUOTE,
      205, 1, tcl_sym_escaped_character, 207, 1, tcl_anon_sym_LBRACK, 588, 1,
      tcl_anon_sym_RBRACK, 248, 2, tcl_sym__concat_word, tcl_aux_sym_regexp_repeat1, 304, 3,
      tcl_sym_variable_substitution, tcl_sym_quoted_word, tcl_sym_command_substitution]"

definition tcl_small_run_9362 :: "nat list" where
  "tcl_small_run_9362 =
    [8, 167, 1, tcl_sym_simple_word, 187, 1, tcl_anon_sym_DOLLAR, 189, 1, tcl_anon_sym_LBRACE,
      203, 1, tcl_anon_sym_DQUOTE, 205, 1, tcl_sym_escaped_character, 207, 1,
      tcl_anon_sym_LBRACK, 367, 2, tcl_sym__concat_word, tcl_sym_braced_word, 304, 3,
      tcl_sym_variable_substitution, tcl_sym_quoted_word, tcl_sym_command_substitution]"

definition tcl_small_run_9390 :: "nat list" where
  "tcl_small_run_9390 =
    [2, 274, 1, tcl_sym__concat, 276, 10, tcl_anon_sym_LF, tcl_anon_sym_SEMI, tcl_sym_unpack,
      tcl_anon_sym_DOLLAR, tcl_anon_sym_LBRACE, tcl_anon_sym_RBRACE, tcl_anon_sym_DQUOTE,
      tcl_sym_escaped_character, tcl_anon_sym_LBRACK, tcl_sym_simple_word]"

definition tcl_small_run_9406 :: "nat list" where
  "tcl_small_run_9406 =
    [8, 677, 1, tcl_sym_simple_word, 681, 1, tcl_anon_sym_DOLLAR, 683, 1, tcl_anon_sym_LBRACE,
      685, 1, tcl_anon_sym_DQUOTE, 687, 1, tcl_sym_escaped_character, 689, 1,
      tcl_anon_sym_LBRACK, 528, 2, tcl_sym__concat_word, tcl_sym_braced_word, 398, 3,
      tcl_sym_variable_substitution, tcl_sym_quoted_word, tcl_sym_command_substitution]"

definition tcl_small_run_9434 :: "nat list" where
  "tcl_small_run_9434 =
    [8, 531, 1, tcl_anon_sym_DOLLAR, 535, 1, tcl_anon_sym_DQUOTE, 539, 1, tcl_anon_sym_LBRACK,
      669, 1, tcl_sym_simple_word, 673, 1, tcl_anon_sym_LBRACE, 675, 1,
      tcl_sym_escaped_character, 692, 2, tcl_sym__concat_word, tcl_sym_braced_word, 595, 3,
      tcl_sym_variable_substitution, tcl_sym_quoted_word, tcl_sym_command_substitution]"

definition tcl_small_run_9462 :: "nat list" where
  "tcl_small_run_9462 =
    [2, 618, 1, tcl_sym__concat, 616, 10, tcl_anon_sym_LF, tcl_anon_sym_SEMI, tcl_sym_unpack,
      tcl_anon_sym_DOLLAR, tcl_anon_sym_LBRACE, tcl_anon_sym_RBRACE, tcl_anon_sym_DQUOTE,
      tcl_sym_escaped_character, tcl_anon_sym_LBRACK, tcl_sym_simple_word]"

definition tcl_small_run_9478 :: "nat list" where
  "tcl_small_run_9478 =
    [4, 739, 1, tcl_anon_sym_LPAREN, 309, 1, tcl_sym_array_index, 250, 2, tcl_sym__concat,
      tcl_sym_escaped_character, 252, 7, tcl_sym_unpack, tcl_anon_sym_DOLLAR,
      tcl_anon_sym_LBRACE, tcl_anon_sym_DQUOTE, tcl_anon_sym_LBRACK, tcl_anon_sym_RBRACK,
      tcl_sym_simple_word]"

definition tcl_small_run_9498 :: "nat list" where
  "tcl_small_run_9498 =
    [5, 841, 1, tcl_anon_sym_COLON_COLON, 254, 1, tcl_aux_sym__id_immediate_repeat1, 640, 1,
      tcl_sym__ns_delim, 648, 2, tcl_anon_sym_LPAREN, tcl_sym_escaped_character, 646, 6,
      tcl_anon_sym_DOLLAR, tcl_anon_sym_LBRACE, tcl_anon_sym_DQUOTE, tcl_anon_sym_LBRACK,
      tcl_anon_sym_RBRACK, tcl_sym_simple_word]"

definition tcl_small_run_9520 :: "nat list" where
  "tcl_small_run_9520 =
    [8, 531, 1, tcl_anon_sym_DOLLAR, 535, 1, tcl_anon_sym_DQUOTE, 539, 1, tcl_anon_sym_LBRACK,
      669, 1, tcl_sym_simple_word, 673, 1, tcl_anon_sym_LBRACE, 675, 1,
      tcl_sym_escaped_character, 620, 2, tcl_sym__concat_word, tcl_sym_braced_word, 595, 3,
      tcl_sym_variable_substitution, tcl_sym_quoted_word, tcl_sym_command_substitution]"

definition tcl_small_run_9548 :: "nat list" where
  "tcl_small_run_9548 =
    [8, 5, 1, tcl_sym_simple_word, 27, 1, tcl_anon_sym_DOLLAR, 29, 1, tcl_anon_sym_LBRACE, 43, 1,
      tcl_anon_sym_DQUOTE, 47, 1, tcl_anon_sym_LBRACK, 149, 1, tcl_sym_escaped_character, 148, 2,
      tcl_sym__concat_word, tcl_sym_braced_word, 198, 3, tcl_sym_variable_substitution,
      tcl_sym_quoted_word, tcl_sym_command_substitution]"

definition tcl_small_run_9576 :: "nat list" where
  "tcl_small_run_9576 =
    [8, 167, 1, tcl_sym_simple_word, 187, 1, tcl_anon_sym_DOLLAR, 189, 1, tcl_anon_sym_LBRACE,
      203, 1, tcl_anon_sym_DQUOTE, 205, 1, tcl_sym_escaped_character, 207, 1,
      tcl_anon_sym_LBRACK, 306, 2, tcl_sym__concat_word, tcl_sym_braced_word, 304, 3,
      tcl_sym_variable_substitution, tcl_sym_quoted_word, tcl_sym_command_substitution]"

definition tcl_small_run_9604 :: "nat list" where
  "tcl_small_run_9604 =
    [8, 531, 1, tcl_anon_sym_DOLLAR, 535, 1, tcl_anon_sym_DQUOTE, 539, 1, tcl_anon_sym_LBRACK,
      669, 1, tcl_sym_simple_word, 673, 1, tcl_anon_sym_LBRACE, 675, 1,
      tcl_sym_escaped_character, 594, 2, tcl_sym__concat_word, tcl_sym_braced_word, 595, 3,
      tcl_sym_variable_substitution, tcl_sym_quoted_word, tcl_sym_command_substitution]"

definition tcl_small_run_9632 :: "nat list" where
  "tcl_small_run_9632 =
    [8, 187, 1, tcl_anon_sym_DOLLAR, 203, 1, tcl_anon_sym_DQUOTE, 207, 1, tcl_anon_sym_LBRACK,
      604, 1, tcl_anon_sym_LBRACE, 833, 1, tcl_sym_simple_word, 835, 1,
      tcl_sym_escaped_character, 334, 1, tcl_sym__word_simple, 421, 4,
      tcl_sym_variable_substitution, tcl_sym_braced_word_simple, tcl_sym_quoted_word,
      tcl_sym_command_substitution]"

definition tcl_small_run_9660 :: "nat list" where
  "tcl_small_run_9660 =
    [8, 531, 1, tcl_anon_sym_DOLLAR, 535, 1, tcl_anon_sym_DQUOTE, 539, 1, tcl_anon_sym_LBRACK,
      669, 1, tcl_sym_simple_word, 673, 1, tcl_anon_sym_LBRACE, 675, 1,
      tcl_sym_escaped_character, 667, 2, tcl_sym__concat_word, tcl_sym_braced_word, 595, 3,
      tcl_sym_variable_substitution, tcl_sym_quoted_word, tcl_sym_command_substitution]"

definition tcl_small_run_9688 :: "nat list" where
  "tcl_small_run_9688 =
    [8, 531, 1, tcl_anon_sym_DOLLAR, 535, 1, tcl_anon_sym_DQUOTE, 539, 1, tcl_anon_sym_LBRACK,
      669, 1, tcl_sym_simple_word, 673, 1, tcl_anon_sym_LBRACE, 675, 1,
      tcl_sym_escaped_character, 668, 2, tcl_sym__concat_word, tcl_sym_braced_word, 595, 3,
      tcl_sym_variable_substitution, tcl_sym_quoted_word, tcl_sym_command_substitution]"

definition tcl_small_run_9716 :: "nat list" where
  "tcl_small_run_9716 =
    [8, 531, 1, tcl_anon_sym_DOLLAR, 535, 1, tcl_anon_sym_DQUOTE, 539, 1, tcl_anon_sym_LBRACK,
      669, 1, tcl_sym_simple_word, 673, 1, tcl_anon_sym_LBRACE, 675, 1,
      tcl_sym_escaped_character, 684, 2, tcl_sym__concat_word, tcl_sym_braced_word, 595, 3,
      tcl_sym_variable_substitution, tcl_sym_quoted_word, tcl_sym_command_substitution]"

definition tcl_small_run_9744 :: "nat list" where
  "tcl_small_run_9744 =
    [8, 167, 1, tcl_sym_simple_word, 187, 1, tcl_anon_sym_DOLLAR, 203, 1, tcl_anon_sym_DQUOTE,
      205, 1, tcl_sym_escaped_character, 207, 1, tcl_anon_sym_LBRACK, 662, 1,
      tcl_anon_sym_RBRACK, 258, 2, tcl_sym__concat_word, tcl_aux_sym_regexp_repeat1, 304, 3,
      tcl_sym_variable_substitution, tcl_sym_quoted_word, tcl_sym_command_substitution]"

definition tcl_small_run_9772 :: "nat list" where
  "tcl_small_run_9772 =
    [8, 531, 1, tcl_anon_sym_DOLLAR, 535, 1, tcl_anon_sym_DQUOTE, 539, 1, tcl_anon_sym_LBRACK,
      669, 1, tcl_sym_simple_word, 673, 1, tcl_anon_sym_LBRACE, 675, 1,
      tcl_sym_escaped_character, 610, 2, tcl_sym__concat_word, tcl_sym_braced_word, 595, 3,
      tcl_sym_variable_substitution, tcl_sym_quoted_word, tcl_sym_command_substitution]"

definition tcl_small_run_9800 :: "nat list" where
  "tcl_small_run_9800 =
    [8, 574, 1, tcl_anon_sym_RBRACK, 843, 1, tcl_sym_simple_word, 846, 1, tcl_anon_sym_DOLLAR,
      849, 1, tcl_anon_sym_DQUOTE, 852, 1, tcl_sym_escaped_character, 855, 1,
      tcl_anon_sym_LBRACK, 248, 2, tcl_sym__concat_word, tcl_aux_sym_regexp_repeat1, 304, 3,
      tcl_sym_variable_substitution, tcl_sym_quoted_word, tcl_sym_command_substitution]"

definition tcl_small_run_9828 :: "nat list" where
  "tcl_small_run_9828 =
    [8, 677, 1, tcl_sym_simple_word, 681, 1, tcl_anon_sym_DOLLAR, 683, 1, tcl_anon_sym_LBRACE,
      685, 1, tcl_anon_sym_DQUOTE, 687, 1, tcl_sym_escaped_character, 689, 1,
      tcl_anon_sym_LBRACK, 542, 2, tcl_sym__concat_word, tcl_sym_braced_word, 398, 3,
      tcl_sym_variable_substitution, tcl_sym_quoted_word, tcl_sym_command_substitution]"

definition tcl_small_run_9856 :: "nat list" where
  "tcl_small_run_9856 =
    [8, 677, 1, tcl_sym_simple_word, 681, 1, tcl_anon_sym_DOLLAR, 683, 1, tcl_anon_sym_LBRACE,
      685, 1, tcl_anon_sym_DQUOTE, 687, 1, tcl_sym_escaped_character, 689, 1,
      tcl_anon_sym_LBRACK, 543, 2, tcl_sym__concat_word, tcl_sym_braced_word, 398, 3,
      tcl_sym_variable_substitution, tcl_sym_quoted_word, tcl_sym_command_substitution]"

definition tcl_small_run_9884 :: "nat list" where
  "tcl_small_run_9884 =
    [8, 5, 1, tcl_sym_simple_word, 27, 1, tcl_anon_sym_DOLLAR, 29, 1, tcl_anon_sym_LBRACE, 43, 1,
      tcl_anon_sym_DQUOTE, 47, 1, tcl_anon_sym_LBRACK, 149, 1, tcl_sym_escaped_character, 284, 2,
      tcl_sym__concat_word, tcl_sym_braced_word, 198, 3, tcl_sym_variable_substitution,
      tcl_sym_quoted_word, tcl_sym_command_substitution]"

definition tcl_small_run_9912 :: "nat list" where
  "tcl_small_run_9912 =
    [2, 282, 1, tcl_sym__concat, 284, 10, tcl_anon_sym_LF, tcl_anon_sym_SEMI, tcl_sym_unpack,
      tcl_anon_sym_DOLLAR, tcl_anon_sym_LBRACE, tcl_anon_sym_RBRACE, tcl_anon_sym_DQUOTE,
      tcl_sym_escaped_character, tcl_anon_sym_LBRACK, tcl_sym_simple_word]"

definition tcl_small_run_9928 :: "nat list" where
  "tcl_small_run_9928 =
    [2, 270, 1, tcl_sym__concat, 272, 10, tcl_anon_sym_LF, tcl_anon_sym_SEMI, tcl_sym_unpack,
      tcl_anon_sym_DOLLAR, tcl_anon_sym_LBRACE, tcl_anon_sym_RBRACE, tcl_anon_sym_DQUOTE,
      tcl_sym_escaped_character, tcl_anon_sym_LBRACK, tcl_sym_simple_word]"

definition tcl_small_run_9944 :: "nat list" where
  "tcl_small_run_9944 =
    [5, 841, 1, tcl_anon_sym_COLON_COLON, 216, 1, tcl_aux_sym__id_immediate_repeat1, 640, 1,
      tcl_sym__ns_delim, 598, 2, tcl_anon_sym_LPAREN, tcl_sym_escaped_character, 596, 6,
      tcl_anon_sym_DOLLAR, tcl_anon_sym_LBRACE, tcl_anon_sym_DQUOTE, tcl_anon_sym_LBRACK,
      tcl_anon_sym_RBRACK, tcl_sym_simple_word]"

definition tcl_small_run_9966 :: "nat list" where
  "tcl_small_run_9966 =
    [8, 677, 1, tcl_sym_simple_word, 681, 1, tcl_anon_sym_DOLLAR, 683, 1, tcl_anon_sym_LBRACE,
      685, 1, tcl_anon_sym_DQUOTE, 687, 1, tcl_sym_escaped_character, 689, 1,
      tcl_anon_sym_LBRACK, 594, 2, tcl_sym__concat_word, tcl_sym_braced_word, 398, 3,
      tcl_sym_variable_substitution, tcl_sym_quoted_word, tcl_sym_command_substitution]"

definition tcl_small_run_9994 :: "nat list" where
  "tcl_small_run_9994 =
    [5, 841, 1, tcl_anon_sym_COLON_COLON, 261, 1, tcl_aux_sym__id_immediate_repeat1, 640, 1,
      tcl_sym__ns_delim, 598, 2, tcl_anon_sym_LPAREN, tcl_sym_escaped_character, 596, 6,
      tcl_anon_sym_DOLLAR, tcl_anon_sym_LBRACE, tcl_anon_sym_DQUOTE, tcl_anon_sym_LBRACK,
      tcl_anon_sym_RBRACK, tcl_sym_simple_word]"

definition tcl_small_run_10016 :: "nat list" where
  "tcl_small_run_10016 =
    [8, 506, 1, tcl_anon_sym_DOLLAR, 510, 1, tcl_anon_sym_DQUOTE, 512, 1, tcl_anon_sym_LBRACK,
      691, 1, tcl_sym_simple_word, 712, 1, tcl_anon_sym_LBRACE, 714, 1,
      tcl_sym_escaped_character, 585, 2, tcl_sym__concat_word, tcl_sym_braced_word, 312, 3,
      tcl_sym_variable_substitution, tcl_sym_quoted_word, tcl_sym_command_substitution]"

definition tcl_small_run_10044 :: "nat list" where
  "tcl_small_run_10044 =
    [8, 167, 1, tcl_sym_simple_word, 187, 1, tcl_anon_sym_DOLLAR, 203, 1, tcl_anon_sym_DQUOTE,
      205, 1, tcl_sym_escaped_character, 207, 1, tcl_anon_sym_LBRACK, 640, 1,
      tcl_anon_sym_RBRACK, 248, 2, tcl_sym__concat_word, tcl_aux_sym_regexp_repeat1, 304, 3,
      tcl_sym_variable_substitution, tcl_sym_quoted_word, tcl_sym_command_substitution]"

definition tcl_small_run_10072 :: "nat list" where
  "tcl_small_run_10072 =
    [2, 236, 1, tcl_anon_sym_LPAREN, 238, 10, tcl_anon_sym_LF, tcl_anon_sym_SEMI,
      tcl_anon_sym_COLON_COLON, tcl_anon_sym_DOLLAR, tcl_anon_sym_LBRACE, tcl_anon_sym_RBRACE,
      tcl_anon_sym_DQUOTE, tcl_sym_escaped_character, tcl_anon_sym_LBRACK, tcl_sym_simple_word]"

definition tcl_small_run_10088 :: "nat list" where
  "tcl_small_run_10088 =
    [4, 739, 1, tcl_anon_sym_LPAREN, 325, 1, tcl_sym_array_index, 254, 2, tcl_sym__concat,
      tcl_sym_escaped_character, 256, 7, tcl_sym_unpack, tcl_anon_sym_DOLLAR,
      tcl_anon_sym_LBRACE, tcl_anon_sym_DQUOTE, tcl_anon_sym_LBRACK, tcl_anon_sym_RBRACK,
      tcl_sym_simple_word]"

definition tcl_small_run_10108 :: "nat list" where
  "tcl_small_run_10108 =
    [5, 841, 1, tcl_anon_sym_COLON_COLON, 216, 1, tcl_aux_sym__id_immediate_repeat1, 640, 1,
      tcl_sym__ns_delim, 594, 2, tcl_anon_sym_LPAREN, tcl_sym_escaped_character, 590, 6,
      tcl_anon_sym_DOLLAR, tcl_anon_sym_LBRACE, tcl_anon_sym_DQUOTE, tcl_anon_sym_LBRACK,
      tcl_anon_sym_RBRACK, tcl_sym_simple_word]"

definition tcl_small_run_10130 :: "nat list" where
  "tcl_small_run_10130 =
    [8, 187, 1, tcl_anon_sym_DOLLAR, 203, 1, tcl_anon_sym_DQUOTE, 207, 1, tcl_anon_sym_LBRACK,
      816, 1, tcl_sym_simple_word, 818, 1, tcl_anon_sym_LBRACE, 820, 1,
      tcl_sym_escaped_character, 157, 1, tcl_sym__word_simple, 329, 4,
      tcl_sym_variable_substitution, tcl_sym_braced_word_simple, tcl_sym_quoted_word,
      tcl_sym_command_substitution]"

definition tcl_small_run_10158 :: "nat list" where
  "tcl_small_run_10158 =
    [8, 527, 1, tcl_sym_simple_word, 531, 1, tcl_anon_sym_DOLLAR, 533, 1, tcl_anon_sym_LBRACE,
      535, 1, tcl_anon_sym_DQUOTE, 537, 1, tcl_sym_escaped_character, 539, 1,
      tcl_anon_sym_LBRACK, 622, 1, tcl_sym__word_simple, 514, 4, tcl_sym_variable_substitution,
      tcl_sym_braced_word_simple, tcl_sym_quoted_word, tcl_sym_command_substitution]"

definition tcl_small_run_10186 :: "nat list" where
  "tcl_small_run_10186 =
    [2, 860, 1, tcl_sym__concat, 858, 10, tcl_anon_sym_LF, tcl_anon_sym_SEMI, tcl_sym_unpack,
      tcl_anon_sym_DOLLAR, tcl_anon_sym_LBRACE, tcl_anon_sym_RBRACE, tcl_anon_sym_DQUOTE,
      tcl_sym_escaped_character, tcl_anon_sym_LBRACK, tcl_sym_simple_word]"

definition tcl_small_run_10202 :: "nat list" where
  "tcl_small_run_10202 =
    [5, 862, 1, tcl_anon_sym_COLON_COLON, 267, 1, tcl_aux_sym__id_immediate_repeat1, 687, 1,
      tcl_sym__ns_delim, 240, 2, tcl_anon_sym_LPAREN, tcl_sym_escaped_character, 242, 6,
      tcl_sym_unpack, tcl_anon_sym_DOLLAR, tcl_anon_sym_LBRACE, tcl_anon_sym_DQUOTE,
      tcl_anon_sym_LBRACK, tcl_sym_simple_word]"

definition tcl_small_run_10224 :: "nat list" where
  "tcl_small_run_10224 =
    [8, 527, 1, tcl_sym_simple_word, 531, 1, tcl_anon_sym_DOLLAR, 533, 1, tcl_anon_sym_LBRACE,
      535, 1, tcl_anon_sym_DQUOTE, 537, 1, tcl_sym_escaped_character, 539, 1,
      tcl_anon_sym_LBRACK, 662, 1, tcl_sym__word_simple, 514, 4, tcl_sym_variable_substitution,
      tcl_sym_braced_word_simple, tcl_sym_quoted_word, tcl_sym_command_substitution]"

definition tcl_small_run_10252 :: "nat list" where
  "tcl_small_run_10252 =
    [5, 862, 1, tcl_anon_sym_COLON_COLON, 205, 1, tcl_aux_sym__id_immediate_repeat1, 687, 1,
      tcl_sym__ns_delim, 244, 2, tcl_anon_sym_LPAREN, tcl_sym_escaped_character, 246, 6,
      tcl_sym_unpack, tcl_anon_sym_DOLLAR, tcl_anon_sym_LBRACE, tcl_anon_sym_DQUOTE,
      tcl_anon_sym_LBRACK, tcl_sym_simple_word]"

definition tcl_small_run_10274 :: "nat list" where
  "tcl_small_run_10274 =
    [8, 527, 1, tcl_sym_simple_word, 531, 1, tcl_anon_sym_DOLLAR, 533, 1, tcl_anon_sym_LBRACE,
      535, 1, tcl_anon_sym_DQUOTE, 537, 1, tcl_sym_escaped_character, 539, 1,
      tcl_anon_sym_LBRACK, 698, 1, tcl_sym__word_simple, 514, 4, tcl_sym_variable_substitution,
      tcl_sym_braced_word_simple, tcl_sym_quoted_word, tcl_sym_command_substitution]"

definition tcl_small_run_10302 :: "nat list" where
  "tcl_small_run_10302 =
    [5, 862, 1, tcl_anon_sym_COLON_COLON, 276, 1, tcl_aux_sym__id_immediate_repeat1, 687, 1,
      tcl_sym__ns_delim, 244, 2, tcl_anon_sym_LPAREN, tcl_sym_escaped_character, 246, 6,
      tcl_sym_unpack, tcl_anon_sym_DOLLAR, tcl_anon_sym_LBRACE, tcl_anon_sym_DQUOTE,
      tcl_anon_sym_LBRACK, tcl_sym_simple_word]"

definition tcl_small_run_10324 :: "nat list" where
  "tcl_small_run_10324 =
    [8, 527, 1, tcl_sym_simple_word, 531, 1, tcl_anon_sym_DOLLAR, 533, 1, tcl_anon_sym_LBRACE,
      535, 1, tcl_anon_sym_DQUOTE, 537, 1, tcl_sym_escaped_character, 539, 1,
      tcl_anon_sym_LBRACK, 609, 1, tcl_sym__word_simple, 514, 4, tcl_sym_variable_substitution,
      tcl_sym_braced_word_simple, tcl_sym_quoted_word, tcl_sym_command_substitution]"

definition tcl_small_run_10352 :: "nat list" where
  "tcl_small_run_10352 =
    [2, 236, 3, tcl_sym__concat, tcl_anon_sym_LPAREN, tcl_sym_escaped_character, 238, 8,
      tcl_sym_unpack, tcl_anon_sym_COLON_COLON, tcl_anon_sym_DOLLAR, tcl_anon_sym_LBRACE,
      tcl_anon_sym_DQUOTE, tcl_anon_sym_LBRACK, tcl_anon_sym_RBRACK, tcl_sym_simple_word]"

definition tcl_small_run_10368 :: "nat list" where
  "tcl_small_run_10368 =
    [8, 527, 1, tcl_sym_simple_word, 531, 1, tcl_anon_sym_DOLLAR, 533, 1, tcl_anon_sym_LBRACE,
      535, 1, tcl_anon_sym_DQUOTE, 537, 1, tcl_sym_escaped_character, 539, 1,
      tcl_anon_sym_LBRACK, 618, 1, tcl_sym__word_simple, 514, 4, tcl_sym_variable_substitution,
      tcl_sym_braced_word_simple, tcl_sym_quoted_word, tcl_sym_command_substitution]"

definition tcl_small_run_10396 :: "nat list" where
  "tcl_small_run_10396 =
    [2, 258, 1, tcl_sym__concat, 260, 10, tcl_anon_sym_LF, tcl_anon_sym_SEMI, tcl_sym_unpack,
      tcl_anon_sym_DOLLAR, tcl_anon_sym_LBRACE, tcl_anon_sym_RBRACE, tcl_anon_sym_DQUOTE,
      tcl_sym_escaped_character, tcl_anon_sym_LBRACK, tcl_sym_simple_word]"

definition tcl_small_run_10412 :: "nat list" where
  "tcl_small_run_10412 =
    [8, 527, 1, tcl_sym_simple_word, 531, 1, tcl_anon_sym_DOLLAR, 533, 1, tcl_anon_sym_LBRACE,
      535, 1, tcl_anon_sym_DQUOTE, 537, 1, tcl_sym_escaped_character, 539, 1,
      tcl_anon_sym_LBRACK, 626, 1, tcl_sym__word_simple, 514, 4, tcl_sym_variable_substitution,
      tcl_sym_braced_word_simple, tcl_sym_quoted_word, tcl_sym_command_substitution]"

definition tcl_small_run_10440 :: "nat list" where
  "tcl_small_run_10440 =
    [8, 527, 1, tcl_sym_simple_word, 531, 1, tcl_anon_sym_DOLLAR, 533, 1, tcl_anon_sym_LBRACE,
      535, 1, tcl_anon_sym_DQUOTE, 537, 1, tcl_sym_escaped_character, 539, 1,
      tcl_anon_sym_LBRACK, 634, 1, tcl_sym__word_simple, 514, 4, tcl_sym_variable_substitution,
      tcl_sym_braced_word_simple, tcl_sym_quoted_word, tcl_sym_command_substitution]"

definition tcl_small_run_10468 :: "nat list" where
  "tcl_small_run_10468 =
    [5, 862, 1, tcl_anon_sym_COLON_COLON, 205, 1, tcl_aux_sym__id_immediate_repeat1, 687, 1,
      tcl_sym__ns_delim, 229, 2, tcl_anon_sym_LPAREN, tcl_sym_escaped_character, 231, 6,
      tcl_sym_unpack, tcl_anon_sym_DOLLAR, tcl_anon_sym_LBRACE, tcl_anon_sym_DQUOTE,
      tcl_anon_sym_LBRACK, tcl_sym_simple_word]"

definition tcl_small_run_10490 :: "nat list" where
  "tcl_small_run_10490 =
    [8, 527, 1, tcl_sym_simple_word, 531, 1, tcl_anon_sym_DOLLAR, 533, 1, tcl_anon_sym_LBRACE,
      535, 1, tcl_anon_sym_DQUOTE, 537, 1, tcl_sym_escaped_character, 539, 1,
      tcl_anon_sym_LBRACK, 642, 1, tcl_sym__word_simple, 514, 4, tcl_sym_variable_substitution,
      tcl_sym_braced_word_simple, tcl_sym_quoted_word, tcl_sym_command_substitution]"

definition tcl_small_run_10518 :: "nat list" where
  "tcl_small_run_10518 =
    [8, 527, 1, tcl_sym_simple_word, 531, 1, tcl_anon_sym_DOLLAR, 533, 1, tcl_anon_sym_LBRACE,
      535, 1, tcl_anon_sym_DQUOTE, 537, 1, tcl_sym_escaped_character, 539, 1,
      tcl_anon_sym_LBRACK, 648, 1, tcl_sym__word_simple, 514, 4, tcl_sym_variable_substitution,
      tcl_sym_braced_word_simple, tcl_sym_quoted_word, tcl_sym_command_substitution]"

definition tcl_small_run_10546 :: "nat list" where
  "tcl_small_run_10546 =
    [8, 527, 1, tcl_sym_simple_word, 531, 1, tcl_anon_sym_DOLLAR, 533, 1, tcl_anon_sym_LBRACE,
      535, 1, tcl_anon_sym_DQUOTE, 537, 1, tcl_sym_escaped_character, 539, 1,
      tcl_anon_sym_LBRACK, 651, 1, tcl_sym__word_simple, 514, 4, tcl_sym_variable_substitution,
      tcl_sym_braced_word_simple, tcl_sym_quoted_word, tcl_sym_command_substitution]"

definition tcl_small_run_10574 :: "nat list" where
  "tcl_small_run_10574 =
    [8, 527, 1, tcl_sym_simple_word, 531, 1, tcl_anon_sym_DOLLAR, 533, 1, tcl_anon_sym_LBRACE,
      535, 1, tcl_anon_sym_DQUOTE, 537, 1, tcl_sym_escaped_character, 539, 1,
      tcl_anon_sym_LBRACK, 653, 1, tcl_sym__word_simple, 514, 4, tcl_sym_variable_substitution,
      tcl_sym_braced_word_simple, tcl_sym_quoted_word, tcl_sym_command_substitution]"

definition tcl_small_run_10602 :: "nat list" where
  "tcl_small_run_10602 =
    [8, 506, 1, tcl_anon_sym_DOLLAR, 510, 1, tcl_anon_sym_DQUOTE, 512, 1, tcl_anon_sym_LBRACK,
      691, 1, tcl_sym_simple_word, 712, 1, tcl_anon_sym_LBRACE, 714, 1,
      tcl_sym_escaped_character, 536, 2, tcl_sym__concat_word, tcl_sym_braced_word, 312, 3,
      tcl_sym_variable_substitution, tcl_sym_quoted_word, tcl_sym_command_substitution]"

definition tcl_small_run_10630 :: "nat list" where
  "tcl_small_run_10630 =
    [8, 677, 1, tcl_sym_simple_word, 681, 1, tcl_anon_sym_DOLLAR, 683, 1, tcl_anon_sym_LBRACE,
      685, 1, tcl_anon_sym_DQUOTE, 687, 1, tcl_sym_escaped_character, 689, 1,
      tcl_anon_sym_LBRACK, 452, 2, tcl_sym__concat_word, tcl_sym_braced_word, 398, 3,
      tcl_sym_variable_substitution, tcl_sym_quoted_word, tcl_sym_command_substitution]"

definition tcl_small_run_10658 :: "nat list" where
  "tcl_small_run_10658 =
    [4, 837, 1, tcl_anon_sym_LPAREN, 343, 1, tcl_sym_array_index, 250, 2, tcl_sym__concat,
      tcl_anon_sym_LF, 252, 6, tcl_anon_sym_SEMI, tcl_anon_sym_on, tcl_anon_sym_finally,
      tcl_anon_sym_RBRACE, tcl_anon_sym_elseif, tcl_anon_sym_else]"

definition tcl_small_run_10677 :: "nat list" where
  "tcl_small_run_10677 =
    [1, 480, 10, tcl_anon_sym_LF, tcl_anon_sym_SEMI, tcl_sym_unpack, tcl_anon_sym_DOLLAR,
      tcl_anon_sym_LBRACE, tcl_anon_sym_RBRACE, tcl_anon_sym_DQUOTE, tcl_sym_escaped_character,
      tcl_anon_sym_LBRACK, tcl_sym_simple_word]"

definition tcl_small_run_10690 :: "nat list" where
  "tcl_small_run_10690 =
    [4, 837, 1, tcl_anon_sym_LPAREN, 346, 1, tcl_sym_array_index, 254, 2, tcl_sym__concat,
      tcl_anon_sym_LF, 256, 6, tcl_anon_sym_SEMI, tcl_anon_sym_on, tcl_anon_sym_finally,
      tcl_anon_sym_RBRACE, tcl_anon_sym_elseif, tcl_anon_sym_else]"

definition tcl_small_run_10709 :: "nat list" where
  "tcl_small_run_10709 =
    [1, 864, 10, tcl_anon_sym_LF, tcl_anon_sym_SEMI, tcl_sym_unpack, tcl_anon_sym_DOLLAR,
      tcl_anon_sym_LBRACE, tcl_anon_sym_RBRACE, tcl_anon_sym_DQUOTE, tcl_sym_escaped_character,
      tcl_anon_sym_LBRACK, tcl_sym_simple_word]"

definition tcl_small_run_10722 :: "nat list" where
  "tcl_small_run_10722 =
    [7, 187, 1, tcl_anon_sym_DOLLAR, 203, 1, tcl_anon_sym_DQUOTE, 207, 1, tcl_anon_sym_LBRACK,
      818, 1, tcl_anon_sym_LBRACE, 866, 1, tcl_sym_simple_word, 868, 1,
      tcl_sym_escaped_character, 363, 4, tcl_sym_variable_substitution,
      tcl_sym_braced_word_simple, tcl_sym_quoted_word, tcl_sym_command_substitution]"

definition tcl_small_run_10747 :: "nat list" where
  "tcl_small_run_10747 =
    [2, 236, 4, tcl_sym__concat, tcl_anon_sym_LF, tcl_anon_sym_COLON_COLON, tcl_anon_sym_LPAREN,
      238, 6, tcl_anon_sym_SEMI, tcl_anon_sym_on, tcl_anon_sym_finally, tcl_anon_sym_RBRACE,
      tcl_anon_sym_elseif, tcl_anon_sym_else]"

definition tcl_small_run_10762 :: "nat list" where
  "tcl_small_run_10762 =
    [8, 531, 1, tcl_anon_sym_DOLLAR, 535, 1, tcl_anon_sym_DQUOTE, 539, 1, tcl_anon_sym_LBRACK,
      669, 1, tcl_sym_simple_word, 675, 1, tcl_sym_escaped_character, 779, 1,
      tcl_anon_sym_RBRACK, 703, 1, tcl_sym__concat_word, 595, 3, tcl_sym_variable_substitution,
      tcl_sym_quoted_word, tcl_sym_command_substitution]"

definition tcl_small_run_10789 :: "nat list" where
  "tcl_small_run_10789 =
    [4, 743, 1, tcl_sym__concat, 870, 1, tcl_sym_escaped_character, 299, 1,
      tcl_aux_sym__concat_word_repeat1, 787, 7, tcl_sym_unpack, tcl_anon_sym_DOLLAR,
      tcl_anon_sym_LBRACE, tcl_anon_sym_DQUOTE, tcl_anon_sym_LBRACK, tcl_anon_sym_RBRACK,
      tcl_sym_simple_word]"

definition tcl_small_run_10808 :: "nat list" where
  "tcl_small_run_10808 =
    [1, 872, 10, tcl_anon_sym_LF, tcl_anon_sym_SEMI, tcl_sym_unpack, tcl_anon_sym_DOLLAR,
      tcl_anon_sym_LBRACE, tcl_anon_sym_RBRACE, tcl_anon_sym_DQUOTE, tcl_sym_escaped_character,
      tcl_anon_sym_LBRACK, tcl_sym_simple_word]"

definition tcl_small_run_10821 :: "nat list" where
  "tcl_small_run_10821 =
    [4, 743, 1, tcl_sym__concat, 870, 1, tcl_sym_escaped_character, 300, 1,
      tcl_aux_sym__concat_word_repeat1, 787, 7, tcl_sym_unpack, tcl_anon_sym_DOLLAR,
      tcl_anon_sym_LBRACE, tcl_anon_sym_DQUOTE, tcl_anon_sym_LBRACK, tcl_anon_sym_RBRACK,
      tcl_sym_simple_word]"

definition tcl_small_run_10840 :: "nat list" where
  "tcl_small_run_10840 =
    [1, 874, 10, tcl_anon_sym_LF, tcl_anon_sym_SEMI, tcl_sym_unpack, tcl_anon_sym_DOLLAR,
      tcl_anon_sym_LBRACE, tcl_anon_sym_RBRACE, tcl_anon_sym_DQUOTE, tcl_sym_escaped_character,
      tcl_anon_sym_LBRACK, tcl_sym_simple_word]"

definition tcl_small_run_10853 :: "nat list" where
  "tcl_small_run_10853 =
    [7, 187, 1, tcl_anon_sym_DOLLAR, 203, 1, tcl_anon_sym_DQUOTE, 207, 1, tcl_anon_sym_LBRACK,
      604, 1, tcl_anon_sym_LBRACE, 876, 1, tcl_sym_simple_word, 878, 1,
      tcl_sym_escaped_character, 386, 4, tcl_sym_variable_substitution,
      tcl_sym_braced_word_simple, tcl_sym_quoted_word, tcl_sym_command_substitution]"

definition tcl_small_run_10878 :: "nat list" where
  "tcl_small_run_10878 =
    [7, 506, 1, tcl_anon_sym_DOLLAR, 508, 1, tcl_anon_sym_LBRACE, 510, 1, tcl_anon_sym_DQUOTE,
      512, 1, tcl_anon_sym_LBRACK, 880, 1, tcl_sym_simple_word, 882, 1,
      tcl_sym_escaped_character, 519, 4, tcl_sym_variable_substitution,
      tcl_sym_braced_word_simple, tcl_sym_quoted_word, tcl_sym_command_substitution]"

definition tcl_small_run_10903 :: "nat list" where
  "tcl_small_run_10903 =
    [1, 884, 10, tcl_anon_sym_LF, tcl_anon_sym_SEMI, tcl_sym_unpack, tcl_anon_sym_DOLLAR,
      tcl_anon_sym_LBRACE, tcl_anon_sym_RBRACE, tcl_anon_sym_DQUOTE, tcl_sym_escaped_character,
      tcl_anon_sym_LBRACK, tcl_sym_simple_word]"

definition tcl_small_run_10916 :: "nat list" where
  "tcl_small_run_10916 =
    [7, 531, 1, tcl_anon_sym_DOLLAR, 533, 1, tcl_anon_sym_LBRACE, 535, 1, tcl_anon_sym_DQUOTE,
      539, 1, tcl_anon_sym_LBRACK, 886, 1, tcl_sym_simple_word, 888, 1,
      tcl_sym_escaped_character, 566, 4, tcl_sym_variable_substitution,
      tcl_sym_braced_word_simple, tcl_sym_quoted_word, tcl_sym_command_substitution]"

definition tcl_small_run_10941 :: "nat list" where
  "tcl_small_run_10941 =
    [4, 837, 1, tcl_anon_sym_LPAREN, 364, 1, tcl_sym_array_index, 618, 2, tcl_sym__concat,
      tcl_anon_sym_LF, 616, 6, tcl_anon_sym_SEMI, tcl_anon_sym_on, tcl_anon_sym_finally,
      tcl_anon_sym_RBRACE, tcl_anon_sym_elseif, tcl_anon_sym_else]"

definition tcl_small_run_10960 :: "nat list" where
  "tcl_small_run_10960 =
    [4, 618, 1, tcl_sym_escaped_character, 890, 1, tcl_sym__concat, 299, 1,
      tcl_aux_sym__concat_word_repeat1, 616, 7, tcl_sym_unpack, tcl_anon_sym_DOLLAR,
      tcl_anon_sym_LBRACE, tcl_anon_sym_DQUOTE, tcl_anon_sym_LBRACK, tcl_anon_sym_RBRACK,
      tcl_sym_simple_word]"

definition tcl_small_run_10979 :: "nat list" where
  "tcl_small_run_10979 =
    [4, 743, 1, tcl_sym__concat, 893, 1, tcl_sym_escaped_character, 299, 1,
      tcl_aux_sym__concat_word_repeat1, 737, 7, tcl_sym_unpack, tcl_anon_sym_DOLLAR,
      tcl_anon_sym_LBRACE, tcl_anon_sym_DQUOTE, tcl_anon_sym_LBRACK, tcl_anon_sym_RBRACK,
      tcl_sym_simple_word]"

definition tcl_small_run_10998 :: "nat list" where
  "tcl_small_run_10998 =
    [7, 602, 1, tcl_anon_sym_DOLLAR, 604, 1, tcl_anon_sym_LBRACE, 608, 1, tcl_anon_sym_DQUOTE,
      612, 1, tcl_anon_sym_LBRACK, 876, 1, tcl_sym_simple_word, 878, 1,
      tcl_sym_escaped_character, 386, 4, tcl_sym_variable_substitution,
      tcl_sym_braced_word_simple, tcl_sym_quoted_word, tcl_sym_command_substitution]"

definition tcl_small_run_11023 :: "nat list" where
  "tcl_small_run_11023 =
    [4, 895, 1, tcl_anon_sym_LPAREN, 381, 1, tcl_sym_array_index, 250, 2, tcl_sym__concat,
      tcl_sym_escaped_character, 252, 6, tcl_anon_sym_DOLLAR, tcl_anon_sym_LBRACE,
      tcl_anon_sym_RBRACE, tcl_anon_sym_DQUOTE, tcl_anon_sym_LBRACK, tcl_sym_simple_word]"

definition tcl_small_run_11042 :: "nat list" where
  "tcl_small_run_11042 =
    [4, 895, 1, tcl_anon_sym_LPAREN, 388, 1, tcl_sym_array_index, 254, 2, tcl_sym__concat,
      tcl_sym_escaped_character, 256, 6, tcl_anon_sym_DOLLAR, tcl_anon_sym_LBRACE,
      tcl_anon_sym_RBRACE, tcl_anon_sym_DQUOTE, tcl_anon_sym_LBRACK, tcl_sym_simple_word]"

definition tcl_small_run_11061 :: "nat list" where
  "tcl_small_run_11061 =
    [4, 741, 1, tcl_sym_escaped_character, 743, 1, tcl_sym__concat, 290, 1,
      tcl_aux_sym__concat_word_repeat1, 521, 7, tcl_sym_unpack, tcl_anon_sym_DOLLAR,
      tcl_anon_sym_LBRACE, tcl_anon_sym_DQUOTE, tcl_anon_sym_LBRACK, tcl_anon_sym_RBRACK,
      tcl_sym_simple_word]"

definition tcl_small_run_11080 :: "nat list" where
  "tcl_small_run_11080 =
    [2, 236, 3, tcl_sym__concat, tcl_anon_sym_LPAREN, tcl_sym_escaped_character, 238, 7,
      tcl_anon_sym_COLON_COLON, tcl_anon_sym_DOLLAR, tcl_anon_sym_LBRACE, tcl_anon_sym_RBRACE,
      tcl_anon_sym_DQUOTE, tcl_anon_sym_LBRACK, tcl_sym_simple_word]"

definition tcl_small_run_11095 :: "nat list" where
  "tcl_small_run_11095 =
    [8, 531, 1, tcl_anon_sym_DOLLAR, 535, 1, tcl_anon_sym_DQUOTE, 539, 1, tcl_anon_sym_LBRACK,
      669, 1, tcl_sym_simple_word, 675, 1, tcl_sym_escaped_character, 693, 1,
      tcl_anon_sym_RBRACK, 710, 1, tcl_sym__concat_word, 595, 3, tcl_sym_variable_substitution,
      tcl_sym_quoted_word, tcl_sym_command_substitution]"

definition tcl_small_run_11122 :: "nat list" where
  "tcl_small_run_11122 =
    [4, 899, 1, tcl_sym_escaped_character, 901, 1, tcl_sym__concat, 324, 1,
      tcl_aux_sym__word_simple_repeat1, 897, 6, tcl_anon_sym_DOLLAR, tcl_anon_sym_LBRACE,
      tcl_anon_sym_RBRACE, tcl_anon_sym_DQUOTE, tcl_anon_sym_LBRACK, tcl_sym_simple_word]"

definition tcl_small_run_11140 :: "nat list" where
  "tcl_small_run_11140 =
    [4, 839, 1, tcl_sym__concat, 870, 1, tcl_anon_sym_LF, 316, 1,
      tcl_aux_sym__concat_word_repeat1, 787, 6, tcl_anon_sym_SEMI, tcl_anon_sym_on,
      tcl_anon_sym_finally, tcl_anon_sym_RBRACE, tcl_anon_sym_elseif, tcl_anon_sym_else]"

definition tcl_small_run_11158 :: "nat list" where
  "tcl_small_run_11158 =
    [2, 278, 2, tcl_sym__concat, tcl_sym_escaped_character, 280, 7, tcl_sym_unpack,
      tcl_anon_sym_DOLLAR, tcl_anon_sym_LBRACE, tcl_anon_sym_DQUOTE, tcl_anon_sym_LBRACK,
      tcl_anon_sym_RBRACK, tcl_sym_simple_word]"

definition tcl_small_run_11172 :: "nat list" where
  "tcl_small_run_11172 =
    [2, 618, 2, tcl_sym__concat, tcl_sym_escaped_character, 616, 7, tcl_sym_unpack,
      tcl_anon_sym_DOLLAR, tcl_anon_sym_LBRACE, tcl_anon_sym_DQUOTE, tcl_anon_sym_LBRACK,
      tcl_anon_sym_RBRACK, tcl_sym_simple_word]"

definition tcl_small_run_11186 :: "nat list" where
  "tcl_small_run_11186 =
    [5, 244, 1, tcl_anon_sym_LPAREN, 903, 1, tcl_anon_sym_COLON_COLON, 323, 1,
      tcl_aux_sym__id_immediate_repeat1, 632, 1, tcl_sym__ns_delim, 246, 5, tcl_anon_sym_DOLLAR,
      tcl_anon_sym_DQUOTE, tcl_sym_escaped_character, tcl_sym__quoted_word_content,
      tcl_anon_sym_LBRACK]"

definition tcl_small_run_11206 :: "nat list" where
  "tcl_small_run_11206 =
    [4, 741, 1, tcl_anon_sym_LF, 839, 1, tcl_sym__concat, 308, 1,
      tcl_aux_sym__concat_word_repeat1, 521, 6, tcl_anon_sym_SEMI, tcl_anon_sym_on,
      tcl_anon_sym_finally, tcl_anon_sym_RBRACE, tcl_anon_sym_elseif, tcl_anon_sym_else]"

definition tcl_small_run_11224 :: "nat list" where
  "tcl_small_run_11224 =
    [2, 274, 2, tcl_sym__concat, tcl_sym_escaped_character, 276, 7, tcl_sym_unpack,
      tcl_anon_sym_DOLLAR, tcl_anon_sym_LBRACE, tcl_anon_sym_DQUOTE, tcl_anon_sym_LBRACK,
      tcl_anon_sym_RBRACK, tcl_sym_simple_word]"

definition tcl_small_run_11238 :: "nat list" where
  "tcl_small_run_11238 =
    [5, 244, 1, tcl_anon_sym_LPAREN, 903, 1, tcl_anon_sym_COLON_COLON, 322, 1,
      tcl_aux_sym__id_immediate_repeat1, 632, 1, tcl_sym__ns_delim, 246, 5, tcl_anon_sym_DOLLAR,
      tcl_anon_sym_DQUOTE, tcl_sym_escaped_character, tcl_sym__quoted_word_content,
      tcl_anon_sym_LBRACK]"

definition tcl_small_run_11258 :: "nat list" where
  "tcl_small_run_11258 =
    [4, 839, 1, tcl_sym__concat, 870, 1, tcl_anon_sym_LF, 318, 1,
      tcl_aux_sym__concat_word_repeat1, 787, 6, tcl_anon_sym_SEMI, tcl_anon_sym_on,
      tcl_anon_sym_finally, tcl_anon_sym_RBRACE, tcl_anon_sym_elseif, tcl_anon_sym_else]"

definition tcl_small_run_11276 :: "nat list" where
  "tcl_small_run_11276 =
    [4, 618, 1, tcl_anon_sym_LF, 905, 1, tcl_sym__concat, 316, 1,
      tcl_aux_sym__concat_word_repeat1, 616, 6, tcl_anon_sym_SEMI, tcl_anon_sym_on,
      tcl_anon_sym_finally, tcl_anon_sym_RBRACE, tcl_anon_sym_elseif, tcl_anon_sym_else]"

definition tcl_small_run_11294 :: "nat list" where
  "tcl_small_run_11294 =
    [2, 282, 2, tcl_sym__concat, tcl_sym_escaped_character, 284, 7, tcl_sym_unpack,
      tcl_anon_sym_DOLLAR, tcl_anon_sym_LBRACE, tcl_anon_sym_DQUOTE, tcl_anon_sym_LBRACK,
      tcl_anon_sym_RBRACK, tcl_sym_simple_word]"

definition tcl_small_run_11308 :: "nat list" where
  "tcl_small_run_11308 =
    [4, 839, 1, tcl_sym__concat, 893, 1, tcl_anon_sym_LF, 316, 1,
      tcl_aux_sym__concat_word_repeat1, 737, 6, tcl_anon_sym_SEMI, tcl_anon_sym_on,
      tcl_anon_sym_finally, tcl_anon_sym_RBRACE, tcl_anon_sym_elseif, tcl_anon_sym_else]"

definition tcl_small_run_11326 :: "nat list" where
  "tcl_small_run_11326 =
    [7, 167, 1, tcl_sym_simple_word, 187, 1, tcl_anon_sym_DOLLAR, 203, 1, tcl_anon_sym_DQUOTE,
      205, 1, tcl_sym_escaped_character, 207, 1, tcl_anon_sym_LBRACK, 246, 1,
      tcl_sym__concat_word, 304, 3, tcl_sym_variable_substitution, tcl_sym_quoted_word,
      tcl_sym_command_substitution]"

definition tcl_small_run_11350 :: "nat list" where
  "tcl_small_run_11350 =
    [2, 270, 2, tcl_sym__concat, tcl_sym_escaped_character, 272, 7, tcl_sym_unpack,
      tcl_anon_sym_DOLLAR, tcl_anon_sym_LBRACE, tcl_anon_sym_DQUOTE, tcl_anon_sym_LBRACK,
      tcl_anon_sym_RBRACK, tcl_sym_simple_word]"

definition tcl_small_run_11364 :: "nat list" where
  "tcl_small_run_11364 =
    [2, 236, 2, tcl_anon_sym_LPAREN, tcl_sym_escaped_character, 238, 7, tcl_anon_sym_COLON_COLON,
      tcl_anon_sym_DOLLAR, tcl_anon_sym_LBRACE, tcl_anon_sym_DQUOTE, tcl_anon_sym_LBRACK,
      tcl_anon_sym_RBRACK, tcl_sym_simple_word]"

definition tcl_small_run_11378 :: "nat list" where
  "tcl_small_run_11378 =
    [5, 229, 1, tcl_anon_sym_LPAREN, 903, 1, tcl_anon_sym_COLON_COLON, 323, 1,
      tcl_aux_sym__id_immediate_repeat1, 632, 1, tcl_sym__ns_delim, 231, 5, tcl_anon_sym_DOLLAR,
      tcl_anon_sym_DQUOTE, tcl_sym_escaped_character, tcl_sym__quoted_word_content,
      tcl_anon_sym_LBRACK]"

definition tcl_small_run_11398 :: "nat list" where
  "tcl_small_run_11398 =
    [5, 236, 1, tcl_anon_sym_LPAREN, 908, 1, tcl_anon_sym_COLON_COLON, 323, 1,
      tcl_aux_sym__id_immediate_repeat1, 632, 1, tcl_sym__ns_delim, 238, 5, tcl_anon_sym_DOLLAR,
      tcl_anon_sym_DQUOTE, tcl_sym_escaped_character, tcl_sym__quoted_word_content,
      tcl_anon_sym_LBRACK]"

definition tcl_small_run_11418 :: "nat list" where
  "tcl_small_run_11418 =
    [4, 913, 1, tcl_sym_escaped_character, 915, 1, tcl_sym__concat, 324, 1,
      tcl_aux_sym__word_simple_repeat1, 911, 6, tcl_anon_sym_DOLLAR, tcl_anon_sym_LBRACE,
      tcl_anon_sym_RBRACE, tcl_anon_sym_DQUOTE, tcl_anon_sym_LBRACK, tcl_sym_simple_word]"

definition tcl_small_run_11436 :: "nat list" where
  "tcl_small_run_11436 =
    [2, 266, 2, tcl_sym__concat, tcl_sym_escaped_character, 268, 7, tcl_sym_unpack,
      tcl_anon_sym_DOLLAR, tcl_anon_sym_LBRACE, tcl_anon_sym_DQUOTE, tcl_anon_sym_LBRACK,
      tcl_anon_sym_RBRACK, tcl_sym_simple_word]"

definition tcl_small_run_11450 :: "nat list" where
  "tcl_small_run_11450 =
    [4, 913, 1, tcl_sym_escaped_character, 918, 1, tcl_sym__concat, 326, 1,
      tcl_aux_sym__word_simple_repeat1, 911, 6, tcl_sym_unpack, tcl_anon_sym_DOLLAR,
      tcl_anon_sym_LBRACE, tcl_anon_sym_DQUOTE, tcl_anon_sym_LBRACK, tcl_sym_simple_word]"

definition tcl_small_run_11468 :: "nat list" where
  "tcl_small_run_11468 =
    [2, 236, 2, tcl_anon_sym_LPAREN, tcl_sym_escaped_character, 238, 7, tcl_sym_unpack,
      tcl_anon_sym_COLON_COLON, tcl_anon_sym_DOLLAR, tcl_anon_sym_LBRACE, tcl_anon_sym_DQUOTE,
      tcl_anon_sym_LBRACK, tcl_sym_simple_word]"

definition tcl_small_run_11482 :: "nat list" where
  "tcl_small_run_11482 =
    [4, 250, 1, tcl_sym_escaped_character, 921, 1, tcl_anon_sym_LPAREN, 429, 1,
      tcl_sym_array_index, 252, 6, tcl_sym_unpack, tcl_anon_sym_DOLLAR, tcl_anon_sym_LBRACE,
      tcl_anon_sym_DQUOTE, tcl_anon_sym_LBRACK, tcl_sym_simple_word]"

definition tcl_small_run_11500 :: "nat list" where
  "tcl_small_run_11500 =
    [4, 925, 1, tcl_sym_escaped_character, 927, 1, tcl_sym__concat, 333, 1,
      tcl_aux_sym__word_simple_repeat1, 923, 6, tcl_sym_unpack, tcl_anon_sym_DOLLAR,
      tcl_anon_sym_LBRACE, tcl_anon_sym_DQUOTE, tcl_anon_sym_LBRACK, tcl_sym_simple_word]"

definition tcl_small_run_11518 :: "nat list" where
  "tcl_small_run_11518 =
    [5, 240, 1, tcl_anon_sym_LPAREN, 903, 1, tcl_anon_sym_COLON_COLON, 311, 1,
      tcl_aux_sym__id_immediate_repeat1, 632, 1, tcl_sym__ns_delim, 242, 5, tcl_anon_sym_DOLLAR,
      tcl_anon_sym_DQUOTE, tcl_sym_escaped_character, tcl_sym__quoted_word_content,
      tcl_anon_sym_LBRACK]"

definition tcl_small_run_11538 :: "nat list" where
  "tcl_small_run_11538 =
    [2, 860, 2, tcl_sym__concat, tcl_sym_escaped_character, 858, 7, tcl_sym_unpack,
      tcl_anon_sym_DOLLAR, tcl_anon_sym_LBRACE, tcl_anon_sym_DQUOTE, tcl_anon_sym_LBRACK,
      tcl_anon_sym_RBRACK, tcl_sym_simple_word]"

definition tcl_small_run_11552 :: "nat list" where
  "tcl_small_run_11552 =
    [4, 254, 1, tcl_sym_escaped_character, 921, 1, tcl_anon_sym_LPAREN, 432, 1,
      tcl_sym_array_index, 256, 6, tcl_sym_unpack, tcl_anon_sym_DOLLAR, tcl_anon_sym_LBRACE,
      tcl_anon_sym_DQUOTE, tcl_anon_sym_LBRACK, tcl_sym_simple_word]"

definition tcl_small_run_11570 :: "nat list" where
  "tcl_small_run_11570 =
    [4, 899, 1, tcl_sym_escaped_character, 927, 1, tcl_sym__concat, 326, 1,
      tcl_aux_sym__word_simple_repeat1, 897, 6, tcl_sym_unpack, tcl_anon_sym_DOLLAR,
      tcl_anon_sym_LBRACE, tcl_anon_sym_DQUOTE, tcl_anon_sym_LBRACK, tcl_sym_simple_word]"

definition tcl_small_run_11588 :: "nat list" where
  "tcl_small_run_11588 =
    [7, 5, 1, tcl_sym_simple_word, 27, 1, tcl_anon_sym_DOLLAR, 43, 1, tcl_anon_sym_DQUOTE, 47, 1,
      tcl_anon_sym_LBRACK, 149, 1, tcl_sym_escaped_character, 141, 1, tcl_sym__concat_word, 198,
      3, tcl_sym_variable_substitution, tcl_sym_quoted_word, tcl_sym_command_substitution]"

definition tcl_small_run_11612 :: "nat list" where
  "tcl_small_run_11612 =
    [1, 260, 9, tcl_anon_sym_LF, tcl_anon_sym_SEMI, tcl_anon_sym_DOLLAR, tcl_anon_sym_LBRACE,
      tcl_anon_sym_RBRACE, tcl_anon_sym_DQUOTE, tcl_sym_escaped_character, tcl_anon_sym_LBRACK,
      tcl_sym_simple_word]"

definition tcl_small_run_11624 :: "nat list" where
  "tcl_small_run_11624 =
    [2, 238, 1, tcl_anon_sym_else, 236, 8, tcl_sym__concat, tcl_anon_sym_on,
      tcl_anon_sym_finally, tcl_anon_sym_COLON_COLON, tcl_anon_sym_LPAREN, tcl_anon_sym_RPAREN,
      tcl_anon_sym_elseif, tcl_anon_sym_RBRACK]"

definition tcl_small_run_11638 :: "nat list" where
  "tcl_small_run_11638 =
    [6, 521, 1, tcl_anon_sym_else, 929, 1, tcl_anon_sym_LPAREN, 931, 1, tcl_sym__concat, 399, 1,
      tcl_aux_sym__concat_word_repeat1, 400, 1, tcl_sym_array_index, 741, 4, tcl_anon_sym_on,
      tcl_anon_sym_finally, tcl_anon_sym_elseif, tcl_anon_sym_RBRACK]"

definition tcl_small_run_11660 :: "nat list" where
  "tcl_small_run_11660 =
    [2, 258, 2, tcl_sym__concat, tcl_sym_escaped_character, 260, 7, tcl_sym_unpack,
      tcl_anon_sym_DOLLAR, tcl_anon_sym_LBRACE, tcl_anon_sym_DQUOTE, tcl_anon_sym_LBRACK,
      tcl_anon_sym_RBRACK, tcl_sym_simple_word]"

definition tcl_small_run_11674 :: "nat list" where
  "tcl_small_run_11674 =
    [4, 901, 1, tcl_sym__concat, 925, 1, tcl_sym_escaped_character, 307, 1,
      tcl_aux_sym__word_simple_repeat1, 923, 6, tcl_anon_sym_DOLLAR, tcl_anon_sym_LBRACE,
      tcl_anon_sym_RBRACE, tcl_anon_sym_DQUOTE, tcl_anon_sym_LBRACK, tcl_sym_simple_word]"

definition tcl_small_run_11692 :: "nat list" where
  "tcl_small_run_11692 =
    [2, 933, 1, tcl_sym_escaped_character, 884, 7, tcl_sym_unpack, tcl_anon_sym_DOLLAR,
      tcl_anon_sym_LBRACE, tcl_anon_sym_DQUOTE, tcl_anon_sym_LBRACK, tcl_anon_sym_RBRACK,
      tcl_sym_simple_word]"

definition tcl_small_run_11705 :: "nat list" where
  "tcl_small_run_11705 =
    [5, 935, 1, tcl_anon_sym_DOLLAR, 937, 1, tcl_anon_sym_DQUOTE, 941, 1, tcl_anon_sym_LBRACK,
      939, 2, tcl_sym_escaped_character, tcl_sym__quoted_word_content, 385, 3,
      tcl_sym_variable_substitution, tcl_sym_command_substitution,
      tcl_aux_sym_quoted_word_repeat1]"

definition tcl_small_run_11724 :: "nat list" where
  "tcl_small_run_11724 =
    [6, 506, 1, tcl_anon_sym_DOLLAR, 510, 1, tcl_anon_sym_DQUOTE, 512, 1, tcl_anon_sym_LBRACK,
      943, 1, tcl_sym_simple_word, 945, 1, tcl_sym_escaped_character, 368, 3,
      tcl_sym_variable_substitution, tcl_sym_quoted_word, tcl_sym_command_substitution]"

definition tcl_small_run_11745 :: "nat list" where
  "tcl_small_run_11745 =
    [2, 278, 2, tcl_sym__concat, tcl_anon_sym_LF, 280, 6, tcl_anon_sym_SEMI, tcl_anon_sym_on,
      tcl_anon_sym_finally, tcl_anon_sym_RBRACE, tcl_anon_sym_elseif, tcl_anon_sym_else]"

definition tcl_small_run_11758 :: "nat list" where
  "tcl_small_run_11758 =
    [2, 270, 2, tcl_sym__concat, tcl_anon_sym_LF, 272, 6, tcl_anon_sym_SEMI, tcl_anon_sym_on,
      tcl_anon_sym_finally, tcl_anon_sym_RBRACE, tcl_anon_sym_elseif, tcl_anon_sym_else]"

definition tcl_small_run_11771 :: "nat list" where
  "tcl_small_run_11771 =
    [5, 935, 1, tcl_anon_sym_DOLLAR, 941, 1, tcl_anon_sym_LBRACK, 947, 1, tcl_anon_sym_DQUOTE,
      949, 2, tcl_sym_escaped_character, tcl_sym__quoted_word_content, 347, 3,
      tcl_sym_variable_substitution, tcl_sym_command_substitution,
      tcl_aux_sym_quoted_word_repeat1]"

definition tcl_small_run_11790 :: "nat list" where
  "tcl_small_run_11790 =
    [2, 266, 2, tcl_sym__concat, tcl_anon_sym_LF, 268, 6, tcl_anon_sym_SEMI, tcl_anon_sym_on,
      tcl_anon_sym_finally, tcl_anon_sym_RBRACE, tcl_anon_sym_elseif, tcl_anon_sym_else]"

definition tcl_small_run_11803 :: "nat list" where
  "tcl_small_run_11803 =
    [5, 935, 1, tcl_anon_sym_DOLLAR, 941, 1, tcl_anon_sym_LBRACK, 951, 1, tcl_anon_sym_DQUOTE,
      939, 2, tcl_sym_escaped_character, tcl_sym__quoted_word_content, 385, 3,
      tcl_sym_variable_substitution, tcl_sym_command_substitution,
      tcl_aux_sym_quoted_word_repeat1]"

definition tcl_small_run_11822 :: "nat list" where
  "tcl_small_run_11822 =
    [6, 681, 1, tcl_anon_sym_DOLLAR, 685, 1, tcl_anon_sym_DQUOTE, 689, 1, tcl_anon_sym_LBRACK,
      953, 1, tcl_sym_simple_word, 955, 1, tcl_sym_escaped_character, 450, 3,
      tcl_sym_variable_substitution, tcl_sym_quoted_word, tcl_sym_command_substitution]"

definition tcl_small_run_11843 :: "nat list" where
  "tcl_small_run_11843 =
    [2, 957, 1, tcl_sym_escaped_character, 864, 7, tcl_sym_unpack, tcl_anon_sym_DOLLAR,
      tcl_anon_sym_LBRACE, tcl_anon_sym_DQUOTE, tcl_anon_sym_LBRACK, tcl_anon_sym_RBRACK,
      tcl_sym_simple_word]"

definition tcl_small_run_11856 :: "nat list" where
  "tcl_small_run_11856 =
    [4, 252, 1, tcl_anon_sym_else, 929, 1, tcl_anon_sym_LPAREN, 444, 1, tcl_sym_array_index, 250,
      5, tcl_sym__concat, tcl_anon_sym_on, tcl_anon_sym_finally, tcl_anon_sym_elseif,
      tcl_anon_sym_RBRACK]"

definition tcl_small_run_11873 :: "nat list" where
  "tcl_small_run_11873 =
    [2, 270, 2, tcl_sym__concat, tcl_sym_escaped_character, 272, 6, tcl_anon_sym_DOLLAR,
      tcl_anon_sym_LBRACE, tcl_anon_sym_RBRACE, tcl_anon_sym_DQUOTE, tcl_anon_sym_LBRACK,
      tcl_sym_simple_word]"

definition tcl_small_run_11886 :: "nat list" where
  "tcl_small_run_11886 =
    [5, 935, 1, tcl_anon_sym_DOLLAR, 941, 1, tcl_anon_sym_LBRACK, 959, 1, tcl_anon_sym_DQUOTE,
      961, 2, tcl_sym_escaped_character, tcl_sym__quoted_word_content, 353, 3,
      tcl_sym_variable_substitution, tcl_sym_command_substitution,
      tcl_aux_sym_quoted_word_repeat1]"

definition tcl_small_run_11905 :: "nat list" where
  "tcl_small_run_11905 =
    [5, 935, 1, tcl_anon_sym_DOLLAR, 941, 1, tcl_anon_sym_LBRACK, 963, 1, tcl_anon_sym_DQUOTE,
      939, 2, tcl_sym_escaped_character, tcl_sym__quoted_word_content, 385, 3,
      tcl_sym_variable_substitution, tcl_sym_command_substitution,
      tcl_aux_sym_quoted_word_repeat1]"

definition tcl_small_run_11924 :: "nat list" where
  "tcl_small_run_11924 =
    [5, 935, 1, tcl_anon_sym_DOLLAR, 941, 1, tcl_anon_sym_LBRACK, 965, 1, tcl_anon_sym_DQUOTE,
      967, 2, tcl_sym_escaped_character, tcl_sym__quoted_word_content, 355, 3,
      tcl_sym_variable_substitution, tcl_sym_command_substitution,
      tcl_aux_sym_quoted_word_repeat1]"

definition tcl_small_run_11943 :: "nat list" where
  "tcl_small_run_11943 =
    [5, 935, 1, tcl_anon_sym_DOLLAR, 941, 1, tcl_anon_sym_LBRACK, 969, 1, tcl_anon_sym_DQUOTE,
      939, 2, tcl_sym_escaped_character, tcl_sym__quoted_word_content, 385, 3,
      tcl_sym_variable_substitution, tcl_sym_command_substitution,
      tcl_aux_sym_quoted_word_repeat1]"

definition tcl_small_run_11962 :: "nat list" where
  "tcl_small_run_11962 =
    [5, 935, 1, tcl_anon_sym_DOLLAR, 941, 1, tcl_anon_sym_LBRACK, 971, 1, tcl_anon_sym_DQUOTE,
      973, 2, tcl_sym_escaped_character, tcl_sym__quoted_word_content, 357, 3,
      tcl_sym_variable_substitution, tcl_sym_command_substitution,
      tcl_aux_sym_quoted_word_repeat1]"

definition tcl_small_run_11981 :: "nat list" where
  "tcl_small_run_11981 =
    [5, 935, 1, tcl_anon_sym_DOLLAR, 941, 1, tcl_anon_sym_LBRACK, 975, 1, tcl_anon_sym_DQUOTE,
      939, 2, tcl_sym_escaped_character, tcl_sym__quoted_word_content, 385, 3,
      tcl_sym_variable_substitution, tcl_sym_command_substitution,
      tcl_aux_sym_quoted_word_repeat1]"

definition tcl_small_run_12000 :: "nat list" where
  "tcl_small_run_12000 =
    [5, 935, 1, tcl_anon_sym_DOLLAR, 941, 1, tcl_anon_sym_LBRACK, 977, 1, tcl_anon_sym_DQUOTE,
      979, 2, tcl_sym_escaped_character, tcl_sym__quoted_word_content, 359, 3,
      tcl_sym_variable_substitution, tcl_sym_command_substitution,
      tcl_aux_sym_quoted_word_repeat1]"

definition tcl_small_run_12019 :: "nat list" where
  "tcl_small_run_12019 =
    [5, 935, 1, tcl_anon_sym_DOLLAR, 941, 1, tcl_anon_sym_LBRACK, 981, 1, tcl_anon_sym_DQUOTE,
      939, 2, tcl_sym_escaped_character, tcl_sym__quoted_word_content, 385, 3,
      tcl_sym_variable_substitution, tcl_sym_command_substitution,
      tcl_aux_sym_quoted_word_repeat1]"

definition tcl_small_run_12038 :: "nat list" where
  "tcl_small_run_12038 =
    [7, 35, 1, tcl_anon_sym_elseif, 37, 1, tcl_anon_sym_else, 983, 1, tcl_anon_sym_LF, 380, 1,
      tcl_aux_sym_if_repeat1, 462, 1, tcl_sym_elseif, 587, 1, tcl_sym_else, 985, 2,
      tcl_anon_sym_SEMI, tcl_anon_sym_RBRACE]"

definition tcl_small_run_12061 :: "nat list" where
  "tcl_small_run_12061 =
    [2, 322, 2, tcl_sym__concat, tcl_sym_escaped_character, 324, 6, tcl_anon_sym_DOLLAR,
      tcl_anon_sym_LBRACE, tcl_anon_sym_RBRACE, tcl_anon_sym_DQUOTE, tcl_anon_sym_LBRACK,
      tcl_sym_simple_word]"

definition tcl_small_run_12074 :: "nat list" where
  "tcl_small_run_12074 =
    [7, 35, 1, tcl_anon_sym_elseif, 37, 1, tcl_anon_sym_else, 987, 1, tcl_anon_sym_LF, 417, 1,
      tcl_aux_sym_if_repeat1, 462, 1, tcl_sym_elseif, 589, 1, tcl_sym_else, 989, 2,
      tcl_anon_sym_SEMI, tcl_anon_sym_RBRACE]"

definition tcl_small_run_12097 :: "nat list" where
  "tcl_small_run_12097 =
    [2, 913, 2, tcl_sym__concat, tcl_sym_escaped_character, 911, 6, tcl_sym_unpack,
      tcl_anon_sym_DOLLAR, tcl_anon_sym_LBRACE, tcl_anon_sym_DQUOTE, tcl_anon_sym_LBRACK,
      tcl_sym_simple_word]"

definition tcl_small_run_12110 :: "nat list" where
  "tcl_small_run_12110 =
    [2, 860, 2, tcl_sym__concat, tcl_anon_sym_LF, 858, 6, tcl_anon_sym_SEMI, tcl_anon_sym_on,
      tcl_anon_sym_finally, tcl_anon_sym_RBRACE, tcl_anon_sym_elseif, tcl_anon_sym_else]"

definition tcl_small_run_12123 :: "nat list" where
  "tcl_small_run_12123 =
    [2, 274, 2, tcl_sym__concat, tcl_sym_escaped_character, 276, 6, tcl_anon_sym_DOLLAR,
      tcl_anon_sym_LBRACE, tcl_anon_sym_RBRACE, tcl_anon_sym_DQUOTE, tcl_anon_sym_LBRACK,
      tcl_sym_simple_word]"

definition tcl_small_run_12136 :: "nat list" where
  "tcl_small_run_12136 =
    [2, 274, 2, tcl_sym__concat, tcl_anon_sym_LF, 276, 6, tcl_anon_sym_SEMI, tcl_anon_sym_on,
      tcl_anon_sym_finally, tcl_anon_sym_RBRACE, tcl_anon_sym_elseif, tcl_anon_sym_else]"

definition tcl_small_run_12149 :: "nat list" where
  "tcl_small_run_12149 =
    [2, 991, 1, tcl_sym_escaped_character, 480, 7, tcl_sym_unpack, tcl_anon_sym_DOLLAR,
      tcl_anon_sym_LBRACE, tcl_anon_sym_DQUOTE, tcl_anon_sym_LBRACK, tcl_anon_sym_RBRACK,
      tcl_sym_simple_word]"

definition tcl_small_run_12162 :: "nat list" where
  "tcl_small_run_12162 =
    [2, 618, 2, tcl_sym__concat, tcl_anon_sym_LF, 616, 6, tcl_anon_sym_SEMI, tcl_anon_sym_on,
      tcl_anon_sym_finally, tcl_anon_sym_RBRACE, tcl_anon_sym_elseif, tcl_anon_sym_else]"

definition tcl_small_run_12175 :: "nat list" where
  "tcl_small_run_12175 =
    [2, 258, 2, tcl_sym__concat, tcl_anon_sym_LF, 260, 6, tcl_anon_sym_SEMI, tcl_anon_sym_on,
      tcl_anon_sym_finally, tcl_anon_sym_RBRACE, tcl_anon_sym_elseif, tcl_anon_sym_else]"

definition tcl_small_run_12188 :: "nat list" where
  "tcl_small_run_12188 =
    [5, 935, 1, tcl_anon_sym_DOLLAR, 941, 1, tcl_anon_sym_LBRACK, 993, 1, tcl_anon_sym_DQUOTE,
      995, 2, tcl_sym_escaped_character, tcl_sym__quoted_word_content, 395, 3,
      tcl_sym_variable_substitution, tcl_sym_command_substitution,
      tcl_aux_sym_quoted_word_repeat1]"

definition tcl_small_run_12207 :: "nat list" where
  "tcl_small_run_12207 =
    [6, 531, 1, tcl_anon_sym_DOLLAR, 535, 1, tcl_anon_sym_DQUOTE, 539, 1, tcl_anon_sym_LBRACK,
      997, 1, tcl_sym_simple_word, 999, 1, tcl_sym_escaped_character, 529, 3,
      tcl_sym_variable_substitution, tcl_sym_quoted_word, tcl_sym_command_substitution]"

definition tcl_small_run_12228 :: "nat list" where
  "tcl_small_run_12228 =
    [2, 1001, 1, tcl_sym_escaped_character, 874, 7, tcl_sym_unpack, tcl_anon_sym_DOLLAR,
      tcl_anon_sym_LBRACE, tcl_anon_sym_DQUOTE, tcl_anon_sym_LBRACK, tcl_anon_sym_RBRACK,
      tcl_sym_simple_word]"

definition tcl_small_run_12241 :: "nat list" where
  "tcl_small_run_12241 =
    [5, 935, 1, tcl_anon_sym_DOLLAR, 941, 1, tcl_anon_sym_LBRACK, 1003, 1, tcl_anon_sym_DQUOTE,
      939, 2, tcl_sym_escaped_character, tcl_sym__quoted_word_content, 385, 3,
      tcl_sym_variable_substitution, tcl_sym_command_substitution,
      tcl_aux_sym_quoted_word_repeat1]"

definition tcl_small_run_12260 :: "nat list" where
  "tcl_small_run_12260 =
    [4, 256, 1, tcl_anon_sym_else, 929, 1, tcl_anon_sym_LPAREN, 447, 1, tcl_sym_array_index, 254,
      5, tcl_sym__concat, tcl_anon_sym_on, tcl_anon_sym_finally, tcl_anon_sym_elseif,
      tcl_anon_sym_RBRACK]"

definition tcl_small_run_12277 :: "nat list" where
  "tcl_small_run_12277 =
    [6, 535, 1, tcl_anon_sym_DQUOTE, 539, 1, tcl_anon_sym_LBRACK, 797, 1, tcl_anon_sym_DOLLAR,
      997, 1, tcl_sym_simple_word, 999, 1, tcl_sym_escaped_character, 529, 3,
      tcl_sym_variable_substitution, tcl_sym_quoted_word, tcl_sym_command_substitution]"

definition tcl_small_run_12298 :: "nat list" where
  "tcl_small_run_12298 =
    [5, 935, 1, tcl_anon_sym_DOLLAR, 941, 1, tcl_anon_sym_LBRACK, 1005, 1, tcl_anon_sym_DQUOTE,
      1007, 2, tcl_sym_escaped_character, tcl_sym__quoted_word_content, 341, 3,
      tcl_sym_variable_substitution, tcl_sym_command_substitution,
      tcl_aux_sym_quoted_word_repeat1]"

definition tcl_small_run_12317 :: "nat list" where
  "tcl_small_run_12317 =
    [4, 616, 1, tcl_anon_sym_else, 929, 1, tcl_anon_sym_LPAREN, 443, 1, tcl_sym_array_index, 618,
      5, tcl_sym__concat, tcl_anon_sym_on, tcl_anon_sym_finally, tcl_anon_sym_elseif,
      tcl_anon_sym_RBRACK]"

definition tcl_small_run_12334 :: "nat list" where
  "tcl_small_run_12334 =
    [2, 282, 2, tcl_sym__concat, tcl_anon_sym_LF, 284, 6, tcl_anon_sym_SEMI, tcl_anon_sym_on,
      tcl_anon_sym_finally, tcl_anon_sym_RBRACE, tcl_anon_sym_elseif, tcl_anon_sym_else]"

definition tcl_small_run_12347 :: "nat list" where
  "tcl_small_run_12347 =
    [2, 1009, 1, tcl_sym_escaped_character, 872, 7, tcl_sym_unpack, tcl_anon_sym_DOLLAR,
      tcl_anon_sym_LBRACE, tcl_anon_sym_DQUOTE, tcl_anon_sym_LBRACK, tcl_anon_sym_RBRACK,
      tcl_sym_simple_word]"

definition tcl_small_run_12360 :: "nat list" where
  "tcl_small_run_12360 =
    [7, 35, 1, tcl_anon_sym_elseif, 37, 1, tcl_anon_sym_else, 1011, 1, tcl_anon_sym_LF, 417, 1,
      tcl_aux_sym_if_repeat1, 462, 1, tcl_sym_elseif, 539, 1, tcl_sym_else, 1013, 2,
      tcl_anon_sym_SEMI, tcl_anon_sym_RBRACE]"

definition tcl_small_run_12383 :: "nat list" where
  "tcl_small_run_12383 =
    [2, 278, 2, tcl_sym__concat, tcl_sym_escaped_character, 280, 6, tcl_anon_sym_DOLLAR,
      tcl_anon_sym_LBRACE, tcl_anon_sym_RBRACE, tcl_anon_sym_DQUOTE, tcl_anon_sym_LBRACK,
      tcl_sym_simple_word]"

definition tcl_small_run_12396 :: "nat list" where
  "tcl_small_run_12396 =
    [2, 282, 2, tcl_sym__concat, tcl_sym_escaped_character, 284, 6, tcl_anon_sym_DOLLAR,
      tcl_anon_sym_LBRACE, tcl_anon_sym_RBRACE, tcl_anon_sym_DQUOTE, tcl_anon_sym_LBRACK,
      tcl_sym_simple_word]"

definition tcl_small_run_12409 :: "nat list" where
  "tcl_small_run_12409 =
    [7, 35, 1, tcl_anon_sym_elseif, 37, 1, tcl_anon_sym_else, 1015, 1, tcl_anon_sym_LF, 362, 1,
      tcl_aux_sym_if_repeat1, 462, 1, tcl_sym_elseif, 554, 1, tcl_sym_else, 1017, 2,
      tcl_anon_sym_SEMI, tcl_anon_sym_RBRACE]"

definition tcl_small_run_12432 :: "nat list" where
  "tcl_small_run_12432 =
    [2, 326, 2, tcl_sym__concat, tcl_sym_escaped_character, 328, 6, tcl_sym_unpack,
      tcl_anon_sym_DOLLAR, tcl_anon_sym_LBRACE, tcl_anon_sym_DQUOTE, tcl_anon_sym_LBRACK,
      tcl_sym_simple_word]"

definition tcl_small_run_12445 :: "nat list" where
  "tcl_small_run_12445 =
    [5, 1019, 1, tcl_anon_sym_DOLLAR, 1022, 1, tcl_anon_sym_DQUOTE, 1027, 1, tcl_anon_sym_LBRACK,
      1024, 2, tcl_sym_escaped_character, tcl_sym__quoted_word_content, 385, 3,
      tcl_sym_variable_substitution, tcl_sym_command_substitution,
      tcl_aux_sym_quoted_word_repeat1]"

definition tcl_small_run_12464 :: "nat list" where
  "tcl_small_run_12464 =
    [2, 913, 2, tcl_sym__concat, tcl_sym_escaped_character, 911, 6, tcl_anon_sym_DOLLAR,
      tcl_anon_sym_LBRACE, tcl_anon_sym_RBRACE, tcl_anon_sym_DQUOTE, tcl_anon_sym_LBRACK,
      tcl_sym_simple_word]"

definition tcl_small_run_12477 :: "nat list" where
  "tcl_small_run_12477 =
    [2, 326, 2, tcl_sym__concat, tcl_sym_escaped_character, 328, 6, tcl_anon_sym_DOLLAR,
      tcl_anon_sym_LBRACE, tcl_anon_sym_RBRACE, tcl_anon_sym_DQUOTE, tcl_anon_sym_LBRACK,
      tcl_sym_simple_word]"

definition tcl_small_run_12490 :: "nat list" where
  "tcl_small_run_12490 =
    [2, 266, 2, tcl_sym__concat, tcl_sym_escaped_character, 268, 6, tcl_anon_sym_DOLLAR,
      tcl_anon_sym_LBRACE, tcl_anon_sym_RBRACE, tcl_anon_sym_DQUOTE, tcl_anon_sym_LBRACK,
      tcl_sym_simple_word]"

definition tcl_small_run_12503 :: "nat list" where
  "tcl_small_run_12503 =
    [6, 27, 1, tcl_anon_sym_DOLLAR, 43, 1, tcl_anon_sym_DQUOTE, 47, 1, tcl_anon_sym_LBRACK, 1030,
      1, tcl_sym_simple_word, 1032, 1, tcl_sym_escaped_character, 235, 3,
      tcl_sym_variable_substitution, tcl_sym_quoted_word, tcl_sym_command_substitution]"

definition tcl_small_run_12524 :: "nat list" where
  "tcl_small_run_12524 =
    [5, 935, 1, tcl_anon_sym_DOLLAR, 941, 1, tcl_anon_sym_LBRACK, 1034, 1, tcl_anon_sym_DQUOTE,
      1036, 2, tcl_sym_escaped_character, tcl_sym__quoted_word_content, 393, 3,
      tcl_sym_variable_substitution, tcl_sym_command_substitution,
      tcl_aux_sym_quoted_word_repeat1]"

definition tcl_small_run_12543 :: "nat list" where
  "tcl_small_run_12543 =
    [2, 322, 2, tcl_sym__concat, tcl_sym_escaped_character, 324, 6, tcl_sym_unpack,
      tcl_anon_sym_DOLLAR, tcl_anon_sym_LBRACE, tcl_anon_sym_DQUOTE, tcl_anon_sym_LBRACK,
      tcl_sym_simple_word]"

definition tcl_small_run_12556 :: "nat list" where
  "tcl_small_run_12556 =
    [2, 258, 2, tcl_sym__concat, tcl_sym_escaped_character, 260, 6, tcl_anon_sym_DOLLAR,
      tcl_anon_sym_LBRACE, tcl_anon_sym_RBRACE, tcl_anon_sym_DQUOTE, tcl_anon_sym_LBRACK,
      tcl_sym_simple_word]"

definition tcl_small_run_12569 :: "nat list" where
  "tcl_small_run_12569 =
    [5, 935, 1, tcl_anon_sym_DOLLAR, 941, 1, tcl_anon_sym_LBRACK, 1038, 1, tcl_anon_sym_DQUOTE,
      939, 2, tcl_sym_escaped_character, tcl_sym__quoted_word_content, 385, 3,
      tcl_sym_variable_substitution, tcl_sym_command_substitution,
      tcl_aux_sym_quoted_word_repeat1]"

definition tcl_small_run_12588 :: "nat list" where
  "tcl_small_run_12588 =
    [6, 187, 1, tcl_anon_sym_DOLLAR, 203, 1, tcl_anon_sym_DQUOTE, 207, 1, tcl_anon_sym_LBRACK,
      1040, 1, tcl_sym_simple_word, 1042, 1, tcl_sym_escaped_character, 310, 3,
      tcl_sym_variable_substitution, tcl_sym_quoted_word, tcl_sym_command_substitution]"

definition tcl_small_run_12609 :: "nat list" where
  "tcl_small_run_12609 =
    [5, 935, 1, tcl_anon_sym_DOLLAR, 941, 1, tcl_anon_sym_LBRACK, 1044, 1, tcl_anon_sym_DQUOTE,
      939, 2, tcl_sym_escaped_character, tcl_sym__quoted_word_content, 385, 3,
      tcl_sym_variable_substitution, tcl_sym_command_substitution,
      tcl_aux_sym_quoted_word_repeat1]"

definition tcl_small_run_12628 :: "nat list" where
  "tcl_small_run_12628 =
    [5, 935, 1, tcl_anon_sym_DOLLAR, 941, 1, tcl_anon_sym_LBRACK, 1046, 1, tcl_anon_sym_DQUOTE,
      1048, 2, tcl_sym_escaped_character, tcl_sym__quoted_word_content, 373, 3,
      tcl_sym_variable_substitution, tcl_sym_command_substitution,
      tcl_aux_sym_quoted_word_repeat1]"

definition tcl_small_run_12647 :: "nat list" where
  "tcl_small_run_12647 =
    [5, 242, 1, tcl_sym_simple_word, 1050, 1, tcl_anon_sym_COLON_COLON, 407, 1,
      tcl_aux_sym__id_immediate_repeat1, 624, 1, tcl_sym__ns_delim, 240, 3, tcl_sym__concat,
      tcl_anon_sym_LPAREN, tcl_anon_sym_LBRACE]"

definition tcl_small_run_12665 :: "nat list" where
  "tcl_small_run_12665 =
    [4, 521, 1, tcl_anon_sym_else, 931, 1, tcl_sym__concat, 399, 1,
      tcl_aux_sym__concat_word_repeat1, 741, 4, tcl_anon_sym_on, tcl_anon_sym_finally,
      tcl_anon_sym_elseif, tcl_anon_sym_RBRACK]"

definition tcl_small_run_12681 :: "nat list" where
  "tcl_small_run_12681 =
    [4, 787, 1, tcl_anon_sym_else, 931, 1, tcl_sym__concat, 402, 1,
      tcl_aux_sym__concat_word_repeat1, 870, 4, tcl_anon_sym_on, tcl_anon_sym_finally,
      tcl_anon_sym_elseif, tcl_anon_sym_RBRACK]"

definition tcl_small_run_12697 :: "nat list" where
  "tcl_small_run_12697 =
    [4, 787, 1, tcl_anon_sym_else, 931, 1, tcl_sym__concat, 403, 1,
      tcl_aux_sym__concat_word_repeat1, 870, 4, tcl_anon_sym_on, tcl_anon_sym_finally,
      tcl_anon_sym_elseif, tcl_anon_sym_RBRACK]"

definition tcl_small_run_12713 :: "nat list" where
  "tcl_small_run_12713 =
    [5, 812, 1, tcl_anon_sym_DQUOTE, 1052, 1, tcl_sym_simple_word, 1054, 1, tcl_anon_sym_LBRACE,
      1056, 1, tcl_anon_sym_RBRACE, 654, 3, tcl_sym_braced_word, tcl_sym__argument_word,
      tcl_sym_quoted_word]"

definition tcl_small_run_12731 :: "nat list" where
  "tcl_small_run_12731 =
    [4, 616, 1, tcl_anon_sym_else, 1058, 1, tcl_sym__concat, 402, 1,
      tcl_aux_sym__concat_word_repeat1, 618, 4, tcl_anon_sym_on, tcl_anon_sym_finally,
      tcl_anon_sym_elseif, tcl_anon_sym_RBRACK]"

definition tcl_small_run_12747 :: "nat list" where
  "tcl_small_run_12747 =
    [4, 737, 1, tcl_anon_sym_else, 931, 1, tcl_sym__concat, 402, 1,
      tcl_aux_sym__concat_word_repeat1, 893, 4, tcl_anon_sym_on, tcl_anon_sym_finally,
      tcl_anon_sym_elseif, tcl_anon_sym_RBRACK]"

definition tcl_small_run_12763 :: "nat list" where
  "tcl_small_run_12763 =
    [5, 1061, 1, tcl_anon_sym_COLON_COLON, 404, 1, tcl_aux_sym__id_immediate_repeat1, 605, 1,
      tcl_sym__ns_delim, 236, 2, tcl_anon_sym_LF, tcl_anon_sym_LPAREN, 238, 2, tcl_anon_sym_SEMI,
      tcl_anon_sym_RBRACE]"

definition tcl_small_run_12781 :: "nat list" where
  "tcl_small_run_12781 =
    [2, 1066, 1, tcl_sym_escaped_character, 1064, 6, tcl_sym_unpack, tcl_anon_sym_DOLLAR,
      tcl_anon_sym_LBRACE, tcl_anon_sym_DQUOTE, tcl_anon_sym_LBRACK, tcl_sym_simple_word]"

definition tcl_small_run_12793 :: "nat list" where
  "tcl_small_run_12793 =
    [3, 1068, 1, tcl_anon_sym_LPAREN, 475, 1, tcl_sym_array_index, 250, 5, tcl_sym__concat,
      tcl_anon_sym_RPAREN, tcl_anon_sym_LBRACE, tcl_anon_sym_RBRACK, tcl_sym_simple_word]"

definition tcl_small_run_12807 :: "nat list" where
  "tcl_small_run_12807 =
    [5, 246, 1, tcl_sym_simple_word, 1050, 1, tcl_anon_sym_COLON_COLON, 413, 1,
      tcl_aux_sym__id_immediate_repeat1, 624, 1, tcl_sym__ns_delim, 244, 3, tcl_sym__concat,
      tcl_anon_sym_LPAREN, tcl_anon_sym_LBRACE]"

definition tcl_small_run_12825 :: "nat list" where
  "tcl_small_run_12825 =
    [5, 246, 1, tcl_sym_simple_word, 1050, 1, tcl_anon_sym_COLON_COLON, 410, 1,
      tcl_aux_sym__id_immediate_repeat1, 624, 1, tcl_sym__ns_delim, 244, 3, tcl_sym__concat,
      tcl_anon_sym_LPAREN, tcl_anon_sym_LBRACE]"

definition tcl_small_run_12843 :: "nat list" where
  "tcl_small_run_12843 =
    [3, 1068, 1, tcl_anon_sym_LPAREN, 494, 1, tcl_sym_array_index, 254, 5, tcl_sym__concat,
      tcl_anon_sym_RPAREN, tcl_anon_sym_LBRACE, tcl_anon_sym_RBRACK, tcl_sym_simple_word]"

definition tcl_small_run_12857 :: "nat list" where
  "tcl_small_run_12857 =
    [5, 231, 1, tcl_sym_simple_word, 1050, 1, tcl_anon_sym_COLON_COLON, 413, 1,
      tcl_aux_sym__id_immediate_repeat1, 624, 1, tcl_sym__ns_delim, 229, 3, tcl_sym__concat,
      tcl_anon_sym_LPAREN, tcl_anon_sym_LBRACE]"

definition tcl_small_run_12875 :: "nat list" where
  "tcl_small_run_12875 =
    [2, 258, 1, tcl_sym_escaped_character, 260, 6, tcl_sym_unpack, tcl_anon_sym_DOLLAR,
      tcl_anon_sym_LBRACE, tcl_anon_sym_DQUOTE, tcl_anon_sym_LBRACK, tcl_sym_simple_word]"

definition tcl_small_run_12887 :: "nat list" where
  "tcl_small_run_12887 =
    [3, 1070, 1, tcl_anon_sym_LPAREN, 504, 1, tcl_sym_array_index, 252, 5, tcl_anon_sym_DOLLAR,
      tcl_anon_sym_DQUOTE, tcl_sym_escaped_character, tcl_sym__quoted_word_content,
      tcl_anon_sym_LBRACK]"

definition tcl_small_run_12901 :: "nat list" where
  "tcl_small_run_12901 =
    [5, 238, 1, tcl_sym_simple_word, 1072, 1, tcl_anon_sym_COLON_COLON, 413, 1,
      tcl_aux_sym__id_immediate_repeat1, 624, 1, tcl_sym__ns_delim, 236, 3, tcl_sym__concat,
      tcl_anon_sym_LPAREN, tcl_anon_sym_LBRACE]"

definition tcl_small_run_12919 :: "nat list" where
  "tcl_small_run_12919 =
    [3, 1070, 1, tcl_anon_sym_LPAREN, 487, 1, tcl_sym_array_index, 256, 5, tcl_anon_sym_DOLLAR,
      tcl_anon_sym_DQUOTE, tcl_sym_escaped_character, tcl_sym__quoted_word_content,
      tcl_anon_sym_LBRACK]"

definition tcl_small_run_12933 :: "nat list" where
  "tcl_small_run_12933 =
    [2, 957, 1, tcl_anon_sym_LF, 864, 6, tcl_anon_sym_SEMI, tcl_anon_sym_on,
      tcl_anon_sym_finally, tcl_anon_sym_RBRACE, tcl_anon_sym_elseif, tcl_anon_sym_else]"

definition tcl_small_run_12945 :: "nat list" where
  "tcl_small_run_12945 =
    [2, 236, 2, tcl_anon_sym_COLON_COLON, tcl_anon_sym_LPAREN, 238, 5, tcl_anon_sym_DOLLAR,
      tcl_anon_sym_DQUOTE, tcl_sym_escaped_character, tcl_sym__quoted_word_content,
      tcl_anon_sym_LBRACK]"

definition tcl_small_run_12957 :: "nat list" where
  "tcl_small_run_12957 =
    [5, 1075, 1, tcl_anon_sym_LF, 1079, 1, tcl_anon_sym_elseif, 417, 1, tcl_aux_sym_if_repeat1,
      462, 1, tcl_sym_elseif, 1077, 3, tcl_anon_sym_SEMI, tcl_anon_sym_RBRACE, tcl_anon_sym_else]"

definition tcl_small_run_12975 :: "nat list" where
  "tcl_small_run_12975 =
    [4, 899, 1, tcl_sym_escaped_character, 1082, 1, tcl_sym__concat, 424, 1,
      tcl_aux_sym__word_simple_repeat1, 897, 4, tcl_anon_sym_DOLLAR, tcl_anon_sym_DQUOTE,
      tcl_anon_sym_LBRACK, tcl_sym_simple_word]"

definition tcl_small_run_12991 :: "nat list" where
  "tcl_small_run_12991 =
    [2, 1001, 1, tcl_anon_sym_LF, 874, 6, tcl_anon_sym_SEMI, tcl_anon_sym_on,
      tcl_anon_sym_finally, tcl_anon_sym_RBRACE, tcl_anon_sym_elseif, tcl_anon_sym_else]"

definition tcl_small_run_13003 :: "nat list" where
  "tcl_small_run_13003 =
    [2, 258, 1, tcl_sym_escaped_character, 260, 6, tcl_anon_sym_DOLLAR, tcl_anon_sym_LBRACE,
      tcl_anon_sym_DQUOTE, tcl_anon_sym_LBRACK, tcl_anon_sym_RBRACK, tcl_sym_simple_word]"

definition tcl_small_run_13015 :: "nat list" where
  "tcl_small_run_13015 =
    [4, 925, 1, tcl_sym_escaped_character, 1082, 1, tcl_sym__concat, 418, 1,
      tcl_aux_sym__word_simple_repeat1, 923, 4, tcl_anon_sym_DOLLAR, tcl_anon_sym_DQUOTE,
      tcl_anon_sym_LBRACK, tcl_sym_simple_word]"

definition tcl_small_run_13031 :: "nat list" where
  "tcl_small_run_13031 =
    [2, 1086, 1, tcl_sym_escaped_character, 1084, 6, tcl_sym_unpack, tcl_anon_sym_DOLLAR,
      tcl_anon_sym_LBRACE, tcl_anon_sym_DQUOTE, tcl_anon_sym_LBRACK, tcl_sym_simple_word]"

definition tcl_small_run_13043 :: "nat list" where
  "tcl_small_run_13043 =
    [2, 1009, 1, tcl_anon_sym_LF, 872, 6, tcl_anon_sym_SEMI, tcl_anon_sym_on,
      tcl_anon_sym_finally, tcl_anon_sym_RBRACE, tcl_anon_sym_elseif, tcl_anon_sym_else]"

definition tcl_small_run_13055 :: "nat list" where
  "tcl_small_run_13055 =
    [4, 913, 1, tcl_sym_escaped_character, 1088, 1, tcl_sym__concat, 424, 1,
      tcl_aux_sym__word_simple_repeat1, 911, 4, tcl_anon_sym_DOLLAR, tcl_anon_sym_DQUOTE,
      tcl_anon_sym_LBRACK, tcl_sym_simple_word]"

definition tcl_small_run_13071 :: "nat list" where
  "tcl_small_run_13071 =
    [2, 933, 1, tcl_anon_sym_LF, 884, 6, tcl_anon_sym_SEMI, tcl_anon_sym_on,
      tcl_anon_sym_finally, tcl_anon_sym_RBRACE, tcl_anon_sym_elseif, tcl_anon_sym_else]"

definition tcl_small_run_13083 :: "nat list" where
  "tcl_small_run_13083 =
    [2, 1093, 1, tcl_sym_escaped_character, 1091, 6, tcl_sym_unpack, tcl_anon_sym_DOLLAR,
      tcl_anon_sym_LBRACE, tcl_anon_sym_DQUOTE, tcl_anon_sym_LBRACK, tcl_sym_simple_word]"

definition tcl_small_run_13095 :: "nat list" where
  "tcl_small_run_13095 =
    [2, 270, 1, tcl_sym_escaped_character, 272, 6, tcl_sym_unpack, tcl_anon_sym_DOLLAR,
      tcl_anon_sym_LBRACE, tcl_anon_sym_DQUOTE, tcl_anon_sym_LBRACK, tcl_sym_simple_word]"

definition tcl_small_run_13107 :: "nat list" where
  "tcl_small_run_13107 =
    [2, 262, 1, tcl_sym_escaped_character, 264, 6, tcl_sym_unpack, tcl_anon_sym_DOLLAR,
      tcl_anon_sym_LBRACE, tcl_anon_sym_DQUOTE, tcl_anon_sym_LBRACK, tcl_sym_simple_word]"

definition tcl_small_run_13119 :: "nat list" where
  "tcl_small_run_13119 =
    [2, 278, 1, tcl_sym_escaped_character, 280, 6, tcl_sym_unpack, tcl_anon_sym_DOLLAR,
      tcl_anon_sym_LBRACE, tcl_anon_sym_DQUOTE, tcl_anon_sym_LBRACK, tcl_sym_simple_word]"

definition tcl_small_run_13131 :: "nat list" where
  "tcl_small_run_13131 =
    [2, 274, 1, tcl_sym_escaped_character, 276, 6, tcl_sym_unpack, tcl_anon_sym_DOLLAR,
      tcl_anon_sym_LBRACE, tcl_anon_sym_DQUOTE, tcl_anon_sym_LBRACK, tcl_sym_simple_word]"

definition tcl_small_run_13143 :: "nat list" where
  "tcl_small_run_13143 =
    [2, 282, 1, tcl_sym_escaped_character, 284, 6, tcl_sym_unpack, tcl_anon_sym_DOLLAR,
      tcl_anon_sym_LBRACE, tcl_anon_sym_DQUOTE, tcl_anon_sym_LBRACK, tcl_sym_simple_word]"

definition tcl_small_run_13155 :: "nat list" where
  "tcl_small_run_13155 =
    [2, 266, 1, tcl_sym_escaped_character, 268, 6, tcl_sym_unpack, tcl_anon_sym_DOLLAR,
      tcl_anon_sym_LBRACE, tcl_anon_sym_DQUOTE, tcl_anon_sym_LBRACK, tcl_sym_simple_word]"

definition tcl_small_run_13167 :: "nat list" where
  "tcl_small_run_13167 =
    [5, 1095, 1, tcl_anon_sym_COLON_COLON, 435, 1, tcl_aux_sym__id_immediate_repeat1, 605, 1,
      tcl_sym__ns_delim, 240, 2, tcl_anon_sym_LF, tcl_anon_sym_LPAREN, 242, 2, tcl_anon_sym_SEMI,
      tcl_anon_sym_RBRACE]"

definition tcl_small_run_13185 :: "nat list" where
  "tcl_small_run_13185 =
    [2, 1099, 1, tcl_sym_escaped_character, 1097, 6, tcl_sym_unpack, tcl_anon_sym_DOLLAR,
      tcl_anon_sym_LBRACE, tcl_anon_sym_DQUOTE, tcl_anon_sym_LBRACK, tcl_sym_simple_word]"

definition tcl_small_run_13197 :: "nat list" where
  "tcl_small_run_13197 =
    [5, 1095, 1, tcl_anon_sym_COLON_COLON, 404, 1, tcl_aux_sym__id_immediate_repeat1, 605, 1,
      tcl_sym__ns_delim, 244, 2, tcl_anon_sym_LF, tcl_anon_sym_LPAREN, 246, 2, tcl_anon_sym_SEMI,
      tcl_anon_sym_RBRACE]"

definition tcl_small_run_13215 :: "nat list" where
  "tcl_small_run_13215 =
    [5, 1095, 1, tcl_anon_sym_COLON_COLON, 437, 1, tcl_aux_sym__id_immediate_repeat1, 605, 1,
      tcl_sym__ns_delim, 244, 2, tcl_anon_sym_LF, tcl_anon_sym_LPAREN, 246, 2, tcl_anon_sym_SEMI,
      tcl_anon_sym_RBRACE]"

definition tcl_small_run_13233 :: "nat list" where
  "tcl_small_run_13233 =
    [5, 1095, 1, tcl_anon_sym_COLON_COLON, 404, 1, tcl_aux_sym__id_immediate_repeat1, 605, 1,
      tcl_sym__ns_delim, 229, 2, tcl_anon_sym_LF, tcl_anon_sym_LPAREN, 231, 2, tcl_anon_sym_SEMI,
      tcl_anon_sym_RBRACE]"

definition tcl_small_run_13251 :: "nat list" where
  "tcl_small_run_13251 =
    [2, 1103, 1, tcl_sym_escaped_character, 1101, 6, tcl_sym_unpack, tcl_anon_sym_DOLLAR,
      tcl_anon_sym_LBRACE, tcl_anon_sym_DQUOTE, tcl_anon_sym_LBRACK, tcl_sym_simple_word]"

definition tcl_small_run_13263 :: "nat list" where
  "tcl_small_run_13263 =
    [2, 1086, 1, tcl_sym_escaped_character, 1084, 5, tcl_anon_sym_DOLLAR, tcl_anon_sym_LBRACE,
      tcl_anon_sym_DQUOTE, tcl_anon_sym_LBRACK, tcl_sym_simple_word]"

definition tcl_small_run_13274 :: "nat list" where
  "tcl_small_run_13274 =
    [3, 1068, 1, tcl_anon_sym_LPAREN, 523, 1, tcl_sym_array_index, 618, 4, tcl_sym__concat,
      tcl_anon_sym_LBRACE, tcl_anon_sym_RBRACK, tcl_sym_simple_word]"

definition tcl_small_run_13287 :: "nat list" where
  "tcl_small_run_13287 =
    [2, 272, 1, tcl_anon_sym_else, 270, 5, tcl_sym__concat, tcl_anon_sym_on,
      tcl_anon_sym_finally, tcl_anon_sym_elseif, tcl_anon_sym_RBRACK]"

definition tcl_small_run_13298 :: "nat list" where
  "tcl_small_run_13298 =
    [2, 276, 1, tcl_anon_sym_else, 274, 5, tcl_sym__concat, tcl_anon_sym_on,
      tcl_anon_sym_finally, tcl_anon_sym_elseif, tcl_anon_sym_RBRACK]"

definition tcl_small_run_13309 :: "nat list" where
  "tcl_small_run_13309 =
    [2, 858, 1, tcl_anon_sym_else, 860, 5, tcl_sym__concat, tcl_anon_sym_on,
      tcl_anon_sym_finally, tcl_anon_sym_elseif, tcl_anon_sym_RBRACK]"

definition tcl_small_run_13320 :: "nat list" where
  "tcl_small_run_13320 =
    [2, 280, 1, tcl_anon_sym_else, 278, 5, tcl_sym__concat, tcl_anon_sym_on,
      tcl_anon_sym_finally, tcl_anon_sym_elseif, tcl_anon_sym_RBRACK]"

definition tcl_small_run_13331 :: "nat list" where
  "tcl_small_run_13331 =
    [2, 284, 1, tcl_anon_sym_else, 282, 5, tcl_sym__concat, tcl_anon_sym_on,
      tcl_anon_sym_finally, tcl_anon_sym_elseif, tcl_anon_sym_RBRACK]"

definition tcl_small_run_13342 :: "nat list" where
  "tcl_small_run_13342 =
    [2, 260, 1, tcl_anon_sym_else, 258, 5, tcl_sym__concat, tcl_anon_sym_on,
      tcl_anon_sym_finally, tcl_anon_sym_elseif, tcl_anon_sym_RBRACK]"

definition tcl_small_run_13353 :: "nat list" where
  "tcl_small_run_13353 =
    [2, 268, 1, tcl_anon_sym_else, 266, 5, tcl_sym__concat, tcl_anon_sym_on,
      tcl_anon_sym_finally, tcl_anon_sym_elseif, tcl_anon_sym_RBRACK]"

definition tcl_small_run_13364 :: "nat list" where
  "tcl_small_run_13364 =
    [2, 1066, 1, tcl_sym_escaped_character, 1064, 5, tcl_anon_sym_DOLLAR, tcl_anon_sym_LBRACE,
      tcl_anon_sym_DQUOTE, tcl_anon_sym_LBRACK, tcl_sym_simple_word]"

definition tcl_small_run_13375 :: "nat list" where
  "tcl_small_run_13375 =
    [6, 197, 1, tcl_anon_sym_else, 1015, 1, tcl_anon_sym_RBRACK, 1105, 1, tcl_anon_sym_elseif,
      453, 1, tcl_aux_sym_if_repeat1, 570, 1, tcl_sym_elseif, 657, 1, tcl_sym_else]"

definition tcl_small_run_13394 :: "nat list" where
  "tcl_small_run_13394 =
    [2, 616, 1, tcl_anon_sym_else, 618, 5, tcl_sym__concat, tcl_anon_sym_on,
      tcl_anon_sym_finally, tcl_anon_sym_elseif, tcl_anon_sym_RBRACK]"

definition tcl_small_run_13405 :: "nat list" where
  "tcl_small_run_13405 =
    [2, 1103, 1, tcl_sym_escaped_character, 1101, 5, tcl_anon_sym_DOLLAR, tcl_anon_sym_LBRACE,
      tcl_anon_sym_DQUOTE, tcl_anon_sym_LBRACK, tcl_sym_simple_word]"

definition tcl_small_run_13416 :: "nat list" where
  "tcl_small_run_13416 =
    [6, 197, 1, tcl_anon_sym_else, 983, 1, tcl_anon_sym_RBRACK, 1105, 1, tcl_anon_sym_elseif,
      454, 1, tcl_aux_sym_if_repeat1, 570, 1, tcl_sym_elseif, 695, 1, tcl_sym_else]"

definition tcl_small_run_13435 :: "nat list" where
  "tcl_small_run_13435 =
    [6, 197, 1, tcl_anon_sym_else, 987, 1, tcl_anon_sym_RBRACK, 1105, 1, tcl_anon_sym_elseif,
      479, 1, tcl_aux_sym_if_repeat1, 570, 1, tcl_sym_elseif, 712, 1, tcl_sym_else]"

definition tcl_small_run_13454 :: "nat list" where
  "tcl_small_run_13454 =
    [6, 197, 1, tcl_anon_sym_else, 1011, 1, tcl_anon_sym_RBRACK, 1105, 1, tcl_anon_sym_elseif,
      479, 1, tcl_aux_sym_if_repeat1, 570, 1, tcl_sym_elseif, 612, 1, tcl_sym_else]"

definition tcl_small_run_13473 :: "nat list" where
  "tcl_small_run_13473 =
    [5, 1068, 1, tcl_anon_sym_LPAREN, 1107, 1, tcl_sym__concat, 530, 1,
      tcl_aux_sym__concat_word_repeat1, 531, 1, tcl_sym_array_index, 741, 2, tcl_anon_sym_LBRACE,
      tcl_sym_simple_word]"

definition tcl_small_run_13490 :: "nat list" where
  "tcl_small_run_13490 =
    [5, 1109, 1, tcl_anon_sym_LF, 1113, 1, tcl_anon_sym_on, 1115, 1, tcl_anon_sym_finally, 575,
      1, tcl_sym_finally, 1111, 2, tcl_anon_sym_SEMI, tcl_anon_sym_RBRACE]"

definition tcl_small_run_13507 :: "nat list" where
  "tcl_small_run_13507 =
    [5, 1115, 1, tcl_anon_sym_finally, 1117, 1, tcl_anon_sym_LF, 1121, 1, tcl_anon_sym_on, 582,
      1, tcl_sym_finally, 1119, 2, tcl_anon_sym_SEMI, tcl_anon_sym_RBRACE]"

definition tcl_small_run_13524 :: "nat list" where
  "tcl_small_run_13524 =
    [1, 282, 5, tcl_sym__concat, tcl_anon_sym_RPAREN, tcl_anon_sym_LBRACE, tcl_anon_sym_RBRACK,
      tcl_sym_simple_word]"

definition tcl_small_run_13532 :: "nat list" where
  "tcl_small_run_13532 =
    [2, 1123, 1, tcl_anon_sym_LF, 1125, 4, tcl_anon_sym_SEMI, tcl_anon_sym_RBRACE,
      tcl_anon_sym_elseif, tcl_anon_sym_else]"

definition tcl_small_run_13542 :: "nat list" where
  "tcl_small_run_13542 =
    [2, 874, 1, tcl_anon_sym_else, 1001, 4, tcl_anon_sym_on, tcl_anon_sym_finally,
      tcl_anon_sym_elseif, tcl_anon_sym_RBRACK]"

definition tcl_small_run_13552 :: "nat list" where
  "tcl_small_run_13552 =
    [5, 1127, 1, tcl_anon_sym_LF, 1129, 1, tcl_anon_sym_SEMI, 1131, 1, tcl_anon_sym_RBRACE, 4, 1,
      tcl_aux_sym_braced_word_repeat1, 509, 1, tcl_aux_sym_braced_word_repeat2]"

definition tcl_small_run_13568 :: "nat list" where
  "tcl_small_run_13568 =
    [2, 1133, 1, tcl_anon_sym_LF, 1135, 4, tcl_anon_sym_SEMI, tcl_anon_sym_RBRACE,
      tcl_anon_sym_elseif, tcl_anon_sym_else]"

definition tcl_small_run_13578 :: "nat list" where
  "tcl_small_run_13578 =
    [1, 270, 5, tcl_sym__concat, tcl_anon_sym_RPAREN, tcl_anon_sym_LBRACE, tcl_anon_sym_RBRACK,
      tcl_sym_simple_word]"

definition tcl_small_run_13586 :: "nat list" where
  "tcl_small_run_13586 =
    [4, 913, 1, tcl_anon_sym_LF, 1137, 1, tcl_sym__concat, 464, 1,
      tcl_aux_sym__word_simple_repeat1, 911, 2, tcl_anon_sym_SEMI, tcl_anon_sym_RBRACE]"

definition tcl_small_run_13600 :: "nat list" where
  "tcl_small_run_13600 =
    [5, 1140, 1, tcl_anon_sym_COLON_COLON, 1142, 1, tcl_sym__ident_imm, 1144, 1,
      tcl_anon_sym_LBRACE, 236, 1, tcl_sym__id_immediate, 649, 1, tcl_sym__ns_delim]"

definition tcl_small_run_13616 :: "nat list" where
  "tcl_small_run_13616 =
    [5, 1146, 1, tcl_anon_sym_LF, 1149, 1, tcl_anon_sym_SEMI, 1152, 1, tcl_anon_sym_RBRACE, 14,
      1, tcl_aux_sym_braced_word_repeat1, 466, 1, tcl_aux_sym_braced_word_repeat2]"

definition tcl_small_run_13632 :: "nat list" where
  "tcl_small_run_13632 =
    [4, 1154, 1, tcl_sym_simple_word, 1156, 1, tcl_anon_sym_LBRACE, 1158, 1, tcl_anon_sym_RBRACE,
      472, 2, tcl_sym_argument, tcl_aux_sym_arguments_repeat1]"

definition tcl_small_run_13646 :: "nat list" where
  "tcl_small_run_13646 =
    [5, 1160, 1, tcl_anon_sym_LF, 1162, 1, tcl_anon_sym_SEMI, 1164, 1, tcl_anon_sym_RBRACE, 6, 1,
      tcl_aux_sym_braced_word_repeat1, 474, 1, tcl_aux_sym_braced_word_repeat2]"

definition tcl_small_run_13662 :: "nat list" where
  "tcl_small_run_13662 =
    [4, 1154, 1, tcl_sym_simple_word, 1156, 1, tcl_anon_sym_LBRACE, 1166, 1, tcl_anon_sym_RBRACE,
      471, 2, tcl_sym_argument, tcl_aux_sym_arguments_repeat1]"

definition tcl_small_run_13676 :: "nat list" where
  "tcl_small_run_13676 =
    [4, 1115, 1, tcl_anon_sym_finally, 1168, 1, tcl_anon_sym_LF, 558, 1, tcl_sym_finally, 1170,
      2, tcl_anon_sym_SEMI, tcl_anon_sym_RBRACE]"

definition tcl_small_run_13690 :: "nat list" where
  "tcl_small_run_13690 =
    [4, 1154, 1, tcl_sym_simple_word, 1156, 1, tcl_anon_sym_LBRACE, 1172, 1, tcl_anon_sym_RBRACE,
      510, 2, tcl_sym_argument, tcl_aux_sym_arguments_repeat1]"

definition tcl_small_run_13704 :: "nat list" where
  "tcl_small_run_13704 =
    [4, 1154, 1, tcl_sym_simple_word, 1156, 1, tcl_anon_sym_LBRACE, 1174, 1, tcl_anon_sym_RBRACE,
      510, 2, tcl_sym_argument, tcl_aux_sym_arguments_repeat1]"

definition tcl_small_run_13718 :: "nat list" where
  "tcl_small_run_13718 =
    [2, 872, 1, tcl_anon_sym_else, 1009, 4, tcl_anon_sym_on, tcl_anon_sym_finally,
      tcl_anon_sym_elseif, tcl_anon_sym_RBRACK]"

definition tcl_small_run_13728 :: "nat list" where
  "tcl_small_run_13728 =
    [5, 129, 1, tcl_anon_sym_RBRACE, 1176, 1, tcl_anon_sym_LF, 1178, 1, tcl_anon_sym_SEMI, 7, 1,
      tcl_aux_sym_braced_word_repeat1, 466, 1, tcl_aux_sym_braced_word_repeat2]"

definition tcl_small_run_13744 :: "nat list" where
  "tcl_small_run_13744 =
    [1, 278, 5, tcl_sym__concat, tcl_anon_sym_RPAREN, tcl_anon_sym_LBRACE, tcl_anon_sym_RBRACK,
      tcl_sym_simple_word]"

definition tcl_small_run_13752 :: "nat list" where
  "tcl_small_run_13752 =
    [1, 274, 5, tcl_sym__concat, tcl_anon_sym_RPAREN, tcl_anon_sym_LBRACE, tcl_anon_sym_RBRACK,
      tcl_sym_simple_word]"

definition tcl_small_run_13760 :: "nat list" where
  "tcl_small_run_13760 =
    [1, 260, 5, tcl_anon_sym_DOLLAR, tcl_anon_sym_DQUOTE, tcl_sym_escaped_character,
      tcl_sym__quoted_word_content, tcl_anon_sym_LBRACK]"

definition tcl_small_run_13768 :: "nat list" where
  "tcl_small_run_13768 =
    [5, 1180, 1, tcl_anon_sym_COLON_COLON, 1182, 1, tcl_sym__ident_imm, 1184, 1,
      tcl_anon_sym_LBRACE, 328, 1, tcl_sym__id_immediate, 604, 1, tcl_sym__ns_delim]"

definition tcl_small_run_13784 :: "nat list" where
  "tcl_small_run_13784 =
    [5, 1075, 1, tcl_anon_sym_RBRACK, 1077, 1, tcl_anon_sym_else, 1186, 1, tcl_anon_sym_elseif,
      479, 1, tcl_aux_sym_if_repeat1, 570, 1, tcl_sym_elseif]"

definition tcl_small_run_13800 :: "nat list" where
  "tcl_small_run_13800 =
    [5, 1189, 1, tcl_anon_sym_LF, 1191, 1, tcl_anon_sym_SEMI, 1193, 1, tcl_anon_sym_RBRACE, 9, 1,
      tcl_aux_sym_braced_word_repeat1, 481, 1, tcl_aux_sym_braced_word_repeat2]"

definition tcl_small_run_13816 :: "nat list" where
  "tcl_small_run_13816 =
    [5, 135, 1, tcl_anon_sym_RBRACE, 1195, 1, tcl_anon_sym_LF, 1197, 1, tcl_anon_sym_SEMI, 8, 1,
      tcl_aux_sym_braced_word_repeat1, 466, 1, tcl_aux_sym_braced_word_repeat2]"

definition tcl_small_run_13832 :: "nat list" where
  "tcl_small_run_13832 =
    [2, 1199, 1, tcl_anon_sym_LF, 1201, 4, tcl_anon_sym_SEMI, tcl_anon_sym_RBRACE,
      tcl_anon_sym_elseif, tcl_anon_sym_else]"

definition tcl_small_run_13842 :: "nat list" where
  "tcl_small_run_13842 =
    [5, 1203, 1, tcl_anon_sym_COLON_COLON, 1205, 1, tcl_sym__ident_imm, 1207, 1,
      tcl_anon_sym_LBRACE, 505, 1, tcl_sym__id_immediate, 673, 1, tcl_sym__ns_delim]"

definition tcl_small_run_13858 :: "nat list" where
  "tcl_small_run_13858 =
    [1, 258, 5, tcl_sym__concat, tcl_anon_sym_RPAREN, tcl_anon_sym_LBRACE, tcl_anon_sym_RBRACK,
      tcl_sym_simple_word]"

definition tcl_small_run_13866 :: "nat list" where
  "tcl_small_run_13866 =
    [5, 1209, 1, tcl_anon_sym_LF, 1211, 1, tcl_anon_sym_SEMI, 1213, 1, tcl_anon_sym_RBRACE, 12,
      1, tcl_aux_sym_braced_word_repeat1, 488, 1, tcl_aux_sym_braced_word_repeat2]"

definition tcl_small_run_13882 :: "nat list" where
  "tcl_small_run_13882 =
    [4, 1115, 1, tcl_anon_sym_finally, 1215, 1, tcl_anon_sym_LF, 561, 1, tcl_sym_finally, 1217,
      2, tcl_anon_sym_SEMI, tcl_anon_sym_RBRACE]"

definition tcl_small_run_13896 :: "nat list" where
  "tcl_small_run_13896 =
    [1, 268, 5, tcl_anon_sym_DOLLAR, tcl_anon_sym_DQUOTE, tcl_sym_escaped_character,
      tcl_sym__quoted_word_content, tcl_anon_sym_LBRACK]"

definition tcl_small_run_13904 :: "nat list" where
  "tcl_small_run_13904 =
    [5, 141, 1, tcl_anon_sym_RBRACE, 1219, 1, tcl_anon_sym_LF, 1221, 1, tcl_anon_sym_SEMI, 10, 1,
      tcl_aux_sym_braced_word_repeat1, 466, 1, tcl_aux_sym_braced_word_repeat2]"

definition tcl_small_run_13920 :: "nat list" where
  "tcl_small_run_13920 =
    [5, 1223, 1, tcl_anon_sym_COLON_COLON, 1225, 1, tcl_sym__ident_imm, 1227, 1,
      tcl_anon_sym_LBRACE, 283, 1, tcl_sym__id_immediate, 711, 1, tcl_sym__ns_delim]"

definition tcl_small_run_13936 :: "nat list" where
  "tcl_small_run_13936 =
    [4, 899, 1, tcl_anon_sym_LF, 1229, 1, tcl_sym__concat, 464, 1,
      tcl_aux_sym__word_simple_repeat1, 897, 2, tcl_anon_sym_SEMI, tcl_anon_sym_RBRACE]"

definition tcl_small_run_13950 :: "nat list" where
  "tcl_small_run_13950 =
    [5, 741, 1, tcl_anon_sym_RBRACK, 1068, 1, tcl_anon_sym_LPAREN, 1231, 1, tcl_sym__concat, 597,
      1, tcl_aux_sym__concat_word_repeat1, 598, 1, tcl_sym_array_index]"

definition tcl_small_run_13966 :: "nat list" where
  "tcl_small_run_13966 =
    [5, 1233, 1, tcl_anon_sym_LF, 1235, 1, tcl_anon_sym_SEMI, 1237, 1, tcl_anon_sym_RBRACE, 11,
      1, tcl_aux_sym_braced_word_repeat1, 495, 1, tcl_aux_sym_braced_word_repeat2]"

definition tcl_small_run_13982 :: "nat list" where
  "tcl_small_run_13982 =
    [5, 1239, 1, tcl_anon_sym_COLON_COLON, 1241, 1, tcl_sym__ident_imm, 1243, 1,
      tcl_anon_sym_LBRACE, 132, 1, tcl_sym__id_immediate, 702, 1, tcl_sym__ns_delim]"

definition tcl_small_run_13998 :: "nat list" where
  "tcl_small_run_13998 =
    [1, 266, 5, tcl_sym__concat, tcl_anon_sym_RPAREN, tcl_anon_sym_LBRACE, tcl_anon_sym_RBRACK,
      tcl_sym_simple_word]"

definition tcl_small_run_14006 :: "nat list" where
  "tcl_small_run_14006 =
    [5, 139, 1, tcl_anon_sym_RBRACE, 1245, 1, tcl_anon_sym_LF, 1247, 1, tcl_anon_sym_SEMI, 13, 1,
      tcl_aux_sym_braced_word_repeat1, 466, 1, tcl_aux_sym_braced_word_repeat2]"

definition tcl_small_run_14022 :: "nat list" where
  "tcl_small_run_14022 =
    [2, 884, 1, tcl_anon_sym_else, 933, 4, tcl_anon_sym_on, tcl_anon_sym_finally,
      tcl_anon_sym_elseif, tcl_anon_sym_RBRACK]"

definition tcl_small_run_14032 :: "nat list" where
  "tcl_small_run_14032 =
    [5, 1249, 1, tcl_anon_sym_COLON_COLON, 1251, 1, tcl_sym__ident_imm, 1253, 1,
      tcl_anon_sym_LBRACE, 406, 1, tcl_sym__id_immediate, 613, 1, tcl_sym__ns_delim]"

definition tcl_small_run_14048 :: "nat list" where
  "tcl_small_run_14048 =
    [4, 925, 1, tcl_anon_sym_LF, 1229, 1, tcl_sym__concat, 490, 1,
      tcl_aux_sym__word_simple_repeat1, 923, 2, tcl_anon_sym_SEMI, tcl_anon_sym_RBRACE]"

definition tcl_small_run_14062 :: "nat list" where
  "tcl_small_run_14062 =
    [5, 1255, 1, tcl_anon_sym_COLON_COLON, 1257, 1, tcl_sym__ident_imm, 1259, 1,
      tcl_anon_sym_LBRACE, 412, 1, tcl_sym__id_immediate, 621, 1, tcl_sym__ns_delim]"

definition tcl_small_run_14078 :: "nat list" where
  "tcl_small_run_14078 =
    [5, 1261, 1, tcl_anon_sym_COLON_COLON, 1263, 1, tcl_sym__ident_imm, 1265, 1,
      tcl_anon_sym_LBRACE, 302, 1, tcl_sym__id_immediate, 629, 1, tcl_sym__ns_delim]"

definition tcl_small_run_14094 :: "nat list" where
  "tcl_small_run_14094 =
    [5, 1267, 1, tcl_anon_sym_COLON_COLON, 1269, 1, tcl_sym__ident_imm, 1271, 1,
      tcl_anon_sym_LBRACE, 36, 1, tcl_sym__id_immediate, 637, 1, tcl_sym__ns_delim]"

definition tcl_small_run_14110 :: "nat list" where
  "tcl_small_run_14110 =
    [5, 1273, 1, tcl_anon_sym_COLON_COLON, 1275, 1, tcl_sym__ident_imm, 1277, 1,
      tcl_anon_sym_LBRACE, 350, 1, tcl_sym__id_immediate, 644, 1, tcl_sym__ns_delim]"

definition tcl_small_run_14126 :: "nat list" where
  "tcl_small_run_14126 =
    [5, 1253, 1, tcl_anon_sym_LBRACE, 1273, 1, tcl_anon_sym_COLON_COLON, 1275, 1,
      tcl_sym__ident_imm, 406, 1, tcl_sym__id_immediate, 644, 1, tcl_sym__ns_delim]"

definition tcl_small_run_14142 :: "nat list" where
  "tcl_small_run_14142 =
    [1, 280, 5, tcl_anon_sym_DOLLAR, tcl_anon_sym_DQUOTE, tcl_sym_escaped_character,
      tcl_sym__quoted_word_content, tcl_anon_sym_LBRACK]"

definition tcl_small_run_14150 :: "nat list" where
  "tcl_small_run_14150 =
    [4, 250, 1, tcl_anon_sym_LF, 1279, 1, tcl_anon_sym_LPAREN, 535, 1, tcl_sym_array_index, 252,
      2, tcl_anon_sym_SEMI, tcl_anon_sym_RBRACE]"

definition tcl_small_run_14164 :: "nat list" where
  "tcl_small_run_14164 =
    [1, 284, 5, tcl_anon_sym_DOLLAR, tcl_anon_sym_DQUOTE, tcl_sym_escaped_character,
      tcl_sym__quoted_word_content, tcl_anon_sym_LBRACK]"

definition tcl_small_run_14172 :: "nat list" where
  "tcl_small_run_14172 =
    [2, 238, 2, tcl_anon_sym_COLON_COLON, tcl_sym_simple_word, 236, 3, tcl_sym__concat,
      tcl_anon_sym_LPAREN, tcl_anon_sym_LBRACE]"

definition tcl_small_run_14182 :: "nat list" where
  "tcl_small_run_14182 =
    [2, 238, 2, tcl_anon_sym_SEMI, tcl_anon_sym_RBRACE, 236, 3, tcl_anon_sym_LF,
      tcl_anon_sym_COLON_COLON, tcl_anon_sym_LPAREN]"

definition tcl_small_run_14192 :: "nat list" where
  "tcl_small_run_14192 =
    [5, 123, 1, tcl_anon_sym_RBRACE, 1281, 1, tcl_anon_sym_LF, 1283, 1, tcl_anon_sym_SEMI, 3, 1,
      tcl_aux_sym_braced_word_repeat1, 466, 1, tcl_aux_sym_braced_word_repeat2]"

definition tcl_small_run_14208 :: "nat list" where
  "tcl_small_run_14208 =
    [4, 1285, 1, tcl_sym_simple_word, 1288, 1, tcl_anon_sym_LBRACE, 1291, 1, tcl_anon_sym_RBRACE,
      510, 2, tcl_sym_argument, tcl_aux_sym_arguments_repeat1]"

definition tcl_small_run_14222 :: "nat list" where
  "tcl_small_run_14222 =
    [4, 1115, 1, tcl_anon_sym_finally, 1293, 1, tcl_anon_sym_LF, 579, 1, tcl_sym_finally, 1295,
      2, tcl_anon_sym_SEMI, tcl_anon_sym_RBRACE]"

definition tcl_small_run_14236 :: "nat list" where
  "tcl_small_run_14236 =
    [4, 254, 1, tcl_anon_sym_LF, 1279, 1, tcl_anon_sym_LPAREN, 545, 1, tcl_sym_array_index, 256,
      2, tcl_anon_sym_SEMI, tcl_anon_sym_RBRACE]"

definition tcl_small_run_14250 :: "nat list" where
  "tcl_small_run_14250 =
    [2, 864, 1, tcl_anon_sym_else, 957, 4, tcl_anon_sym_on, tcl_anon_sym_finally,
      tcl_anon_sym_elseif, tcl_anon_sym_RBRACK]"

definition tcl_small_run_14260 :: "nat list" where
  "tcl_small_run_14260 =
    [3, 1297, 1, tcl_sym__concat, 517, 1, tcl_aux_sym__word_simple_repeat1, 925, 2,
      tcl_anon_sym_RPAREN, tcl_anon_sym_RBRACK]"

definition tcl_small_run_14271 :: "nat list" where
  "tcl_small_run_14271 =
    [3, 1107, 1, tcl_sym__concat, 533, 1, tcl_aux_sym__concat_word_repeat1, 893, 2,
      tcl_anon_sym_LBRACE, tcl_sym_simple_word]"

definition tcl_small_run_14282 :: "nat list" where
  "tcl_small_run_14282 =
    [2, 326, 2, tcl_sym__concat, tcl_anon_sym_LF, 328, 2, tcl_anon_sym_SEMI, tcl_anon_sym_RBRACE]"

definition tcl_small_run_14291 :: "nat list" where
  "tcl_small_run_14291 =
    [3, 1297, 1, tcl_sym__concat, 518, 1, tcl_aux_sym__word_simple_repeat1, 899, 2,
      tcl_anon_sym_RPAREN, tcl_anon_sym_RBRACK]"

definition tcl_small_run_14302 :: "nat list" where
  "tcl_small_run_14302 =
    [3, 1299, 1, tcl_sym__concat, 518, 1, tcl_aux_sym__word_simple_repeat1, 913, 2,
      tcl_anon_sym_RPAREN, tcl_anon_sym_RBRACK]"

definition tcl_small_run_14313 :: "nat list" where
  "tcl_small_run_14313 =
    [2, 911, 2, tcl_anon_sym_SEMI, tcl_anon_sym_RBRACE, 913, 2, tcl_sym__concat, tcl_anon_sym_LF]"

definition tcl_small_run_14322 :: "nat list" where
  "tcl_small_run_14322 =
    [4, 1302, 1, tcl_sym__ident, 1304, 1, tcl_anon_sym_COLON_COLON2, 1306, 1,
      tcl_anon_sym_DOLLAR, 110, 1, tcl_sym_id]"

definition tcl_small_run_14335 :: "nat list" where
  "tcl_small_run_14335 =
    [3, 1107, 1, tcl_sym__concat, 530, 1, tcl_aux_sym__concat_word_repeat1, 741, 2,
      tcl_anon_sym_LBRACE, tcl_sym_simple_word]"

definition tcl_small_run_14346 :: "nat list" where
  "tcl_small_run_14346 =
    [1, 1009, 4, tcl_anon_sym_LBRACE, tcl_anon_sym_RBRACE, tcl_anon_sym_RBRACK,
      tcl_sym_simple_word]"

definition tcl_small_run_14353 :: "nat list" where
  "tcl_small_run_14353 =
    [1, 860, 4, tcl_sym__concat, tcl_anon_sym_LBRACE, tcl_anon_sym_RBRACK, tcl_sym_simple_word]"

definition tcl_small_run_14360 :: "nat list" where
  "tcl_small_run_14360 =
    [4, 1109, 1, tcl_anon_sym_RBRACK, 1308, 1, tcl_anon_sym_on, 1310, 1, tcl_anon_sym_finally,
      713, 1, tcl_sym_finally]"

definition tcl_small_run_14373 :: "nat list" where
  "tcl_small_run_14373 =
    [1, 933, 4, tcl_anon_sym_LBRACE, tcl_anon_sym_RBRACE, tcl_anon_sym_RBRACK,
      tcl_sym_simple_word]"

definition tcl_small_run_14380 :: "nat list" where
  "tcl_small_run_14380 =
    [1, 957, 4, tcl_anon_sym_LBRACE, tcl_anon_sym_RBRACE, tcl_anon_sym_RBRACK,
      tcl_sym_simple_word]"

definition tcl_small_run_14387 :: "nat list" where
  "tcl_small_run_14387 =
    [1, 1001, 4, tcl_anon_sym_LBRACE, tcl_anon_sym_RBRACE, tcl_anon_sym_RBRACK,
      tcl_sym_simple_word]"

definition tcl_small_run_14394 :: "nat list" where
  "tcl_small_run_14394 =
    [4, 1117, 1, tcl_anon_sym_RBRACK, 1310, 1, tcl_anon_sym_finally, 1312, 1, tcl_anon_sym_on,
      630, 1, tcl_sym_finally]"

definition tcl_small_run_14407 :: "nat list" where
  "tcl_small_run_14407 =
    [1, 618, 4, tcl_sym__concat, tcl_anon_sym_LBRACE, tcl_anon_sym_RBRACK, tcl_sym_simple_word]"

definition tcl_small_run_14414 :: "nat list" where
  "tcl_small_run_14414 =
    [3, 1107, 1, tcl_sym__concat, 533, 1, tcl_aux_sym__concat_word_repeat1, 870, 2,
      tcl_anon_sym_LBRACE, tcl_sym_simple_word]"

definition tcl_small_run_14425 :: "nat list" where
  "tcl_small_run_14425 =
    [3, 1107, 1, tcl_sym__concat, 515, 1, tcl_aux_sym__concat_word_repeat1, 870, 2,
      tcl_anon_sym_LBRACE, tcl_sym_simple_word]"

definition tcl_small_run_14436 :: "nat list" where
  "tcl_small_run_14436 =
    [4, 1314, 1, tcl_sym__ident, 1316, 1, tcl_anon_sym_COLON_COLON2, 1318, 1,
      tcl_anon_sym_DOLLAR, 100, 1, tcl_sym_id]"

definition tcl_small_run_14449 :: "nat list" where
  "tcl_small_run_14449 =
    [3, 1320, 1, tcl_sym__concat, 533, 1, tcl_aux_sym__concat_word_repeat1, 618, 2,
      tcl_anon_sym_LBRACE, tcl_sym_simple_word]"

definition tcl_small_run_14460 :: "nat list" where
  "tcl_small_run_14460 =
    [2, 322, 2, tcl_sym__concat, tcl_anon_sym_LF, 324, 2, tcl_anon_sym_SEMI, tcl_anon_sym_RBRACE]"

definition tcl_small_run_14469 :: "nat list" where
  "tcl_small_run_14469 =
    [2, 278, 1, tcl_anon_sym_LF, 280, 2, tcl_anon_sym_SEMI, tcl_anon_sym_RBRACE]"

definition tcl_small_run_14477 :: "nat list" where
  "tcl_small_run_14477 =
    [2, 1323, 1, tcl_anon_sym_LF, 1325, 2, tcl_anon_sym_SEMI, tcl_anon_sym_RBRACE]"

definition tcl_small_run_14485 :: "nat list" where
  "tcl_small_run_14485 =
    [2, 1327, 1, tcl_anon_sym_LF, 1329, 2, tcl_anon_sym_SEMI, tcl_anon_sym_RBRACE]"

definition tcl_small_run_14493 :: "nat list" where
  "tcl_small_run_14493 =
    [2, 262, 1, tcl_anon_sym_LF, 264, 2, tcl_anon_sym_SEMI, tcl_anon_sym_RBRACE]"

definition tcl_small_run_14501 :: "nat list" where
  "tcl_small_run_14501 =
    [2, 1331, 1, tcl_anon_sym_LF, 1333, 2, tcl_anon_sym_SEMI, tcl_anon_sym_RBRACE]"

definition tcl_small_run_14509 :: "nat list" where
  "tcl_small_run_14509 =
    [2, 1099, 1, tcl_anon_sym_LF, 1097, 2, tcl_anon_sym_SEMI, tcl_anon_sym_RBRACE]"

definition tcl_small_run_14517 :: "nat list" where
  "tcl_small_run_14517 =
    [3, 1293, 1, tcl_anon_sym_RBRACK, 1310, 1, tcl_anon_sym_finally, 628, 1, tcl_sym_finally]"

definition tcl_small_run_14527 :: "nat list" where
  "tcl_small_run_14527 =
    [3, 1168, 1, tcl_anon_sym_RBRACK, 1310, 1, tcl_anon_sym_finally, 656, 1, tcl_sym_finally]"

definition tcl_small_run_14537 :: "nat list" where
  "tcl_small_run_14537 =
    [3, 1215, 1, tcl_anon_sym_RBRACK, 1310, 1, tcl_anon_sym_finally, 661, 1, tcl_sym_finally]"

definition tcl_small_run_14547 :: "nat list" where
  "tcl_small_run_14547 =
    [2, 1335, 1, tcl_anon_sym_LF, 1337, 2, tcl_anon_sym_SEMI, tcl_anon_sym_RBRACE]"

definition tcl_small_run_14555 :: "nat list" where
  "tcl_small_run_14555 =
    [2, 266, 1, tcl_anon_sym_LF, 268, 2, tcl_anon_sym_SEMI, tcl_anon_sym_RBRACE]"

definition tcl_small_run_14563 :: "nat list" where
  "tcl_small_run_14563 =
    [2, 1339, 1, tcl_anon_sym_LF, 1341, 2, tcl_anon_sym_SEMI, tcl_anon_sym_RBRACE]"

definition tcl_small_run_14571 :: "nat list" where
  "tcl_small_run_14571 =
    [2, 1343, 1, tcl_anon_sym_LF, 1345, 2, tcl_anon_sym_SEMI, tcl_anon_sym_RBRACE]"

definition tcl_small_run_14579 :: "nat list" where
  "tcl_small_run_14579 =
    [2, 258, 1, tcl_anon_sym_LF, 260, 2, tcl_anon_sym_SEMI, tcl_anon_sym_RBRACE]"

definition tcl_small_run_14587 :: "nat list" where
  "tcl_small_run_14587 =
    [2, 1347, 1, tcl_anon_sym_LF, 1349, 2, tcl_anon_sym_SEMI, tcl_anon_sym_RBRACE]"

definition tcl_small_run_14595 :: "nat list" where
  "tcl_small_run_14595 =
    [2, 1351, 1, tcl_anon_sym_LF, 1353, 2, tcl_anon_sym_SEMI, tcl_anon_sym_RBRACE]"

definition tcl_small_run_14603 :: "nat list" where
  "tcl_small_run_14603 =
    [2, 1355, 1, tcl_anon_sym_LF, 693, 2, tcl_anon_sym_SEMI, tcl_anon_sym_RBRACE]"

definition tcl_small_run_14611 :: "nat list" where
  "tcl_small_run_14611 =
    [2, 1201, 1, tcl_anon_sym_else, 1199, 2, tcl_anon_sym_elseif, tcl_anon_sym_RBRACK]"

definition tcl_small_run_14619 :: "nat list" where
  "tcl_small_run_14619 =
    [2, 1357, 1, tcl_anon_sym_LF, 564, 2, tcl_anon_sym_SEMI, tcl_anon_sym_RBRACE]"

definition tcl_small_run_14627 :: "nat list" where
  "tcl_small_run_14627 =
    [2, 1359, 1, tcl_anon_sym_LF, 1361, 2, tcl_anon_sym_SEMI, tcl_anon_sym_RBRACE]"

definition tcl_small_run_14635 :: "nat list" where
  "tcl_small_run_14635 =
    [3, 1363, 1, tcl_sym_simple_word, 1365, 1, tcl_anon_sym_LBRACE, 202, 1, tcl_sym_arguments]"

definition tcl_small_run_14645 :: "nat list" where
  "tcl_small_run_14645 =
    [2, 1367, 1, tcl_anon_sym_LF, 1369, 2, tcl_anon_sym_SEMI, tcl_anon_sym_RBRACE]"

definition tcl_small_run_14653 :: "nat list" where
  "tcl_small_run_14653 =
    [3, 1371, 1, tcl_sym_simple_word, 1373, 1, tcl_anon_sym_LBRACE, 170, 1, tcl_sym_arguments]"

definition tcl_small_run_14663 :: "nat list" where
  "tcl_small_run_14663 =
    [2, 1215, 1, tcl_anon_sym_LF, 1217, 2, tcl_anon_sym_SEMI, tcl_anon_sym_RBRACE]"

definition tcl_small_run_14671 :: "nat list" where
  "tcl_small_run_14671 =
    [3, 1371, 1, tcl_sym_simple_word, 1373, 1, tcl_anon_sym_LBRACE, 175, 1, tcl_sym_arguments]"

definition tcl_small_run_14681 :: "nat list" where
  "tcl_small_run_14681 =
    [2, 1375, 1, tcl_anon_sym_LF, 1377, 2, tcl_anon_sym_SEMI, tcl_anon_sym_RBRACE]"

definition tcl_small_run_14689 :: "nat list" where
  "tcl_small_run_14689 =
    [2, 1379, 1, tcl_anon_sym_LF, 1381, 2, tcl_anon_sym_SEMI, tcl_anon_sym_RBRACE]"

definition tcl_small_run_14697 :: "nat list" where
  "tcl_small_run_14697 =
    [2, 1383, 1, tcl_anon_sym_LF, 1385, 2, tcl_anon_sym_SEMI, tcl_anon_sym_RBRACE]"

definition tcl_small_run_14705 :: "nat list" where
  "tcl_small_run_14705 =
    [2, 1387, 1, tcl_anon_sym_LF, 1389, 2, tcl_anon_sym_SEMI, tcl_anon_sym_RBRACE]"

definition tcl_small_run_14713 :: "nat list" where
  "tcl_small_run_14713 =
    [2, 1093, 1, tcl_anon_sym_LF, 1091, 2, tcl_anon_sym_SEMI, tcl_anon_sym_RBRACE]"

definition tcl_small_run_14721 :: "nat list" where
  "tcl_small_run_14721 =
    [2, 1391, 1, tcl_anon_sym_LF, 1152, 2, tcl_anon_sym_SEMI, tcl_anon_sym_RBRACE]"

definition tcl_small_run_14729 :: "nat list" where
  "tcl_small_run_14729 =
    [1, 913, 3, tcl_sym__concat, tcl_anon_sym_RPAREN, tcl_anon_sym_RBRACK]"

definition tcl_small_run_14735 :: "nat list" where
  "tcl_small_run_14735 =
    [2, 1393, 1, tcl_anon_sym_LF, 1395, 2, tcl_anon_sym_SEMI, tcl_anon_sym_RBRACE]"

definition tcl_small_run_14743 :: "nat list" where
  "tcl_small_run_14743 =
    [1, 1397, 3, tcl_anon_sym_LBRACE, tcl_anon_sym_RBRACE, tcl_sym_simple_word]"

definition tcl_small_run_14749 :: "nat list" where
  "tcl_small_run_14749 =
    [2, 1399, 1, tcl_anon_sym_LF, 1401, 2, tcl_anon_sym_SEMI, tcl_anon_sym_RBRACE]"

definition tcl_small_run_14757 :: "nat list" where
  "tcl_small_run_14757 =
    [2, 1135, 1, tcl_anon_sym_else, 1133, 2, tcl_anon_sym_elseif, tcl_anon_sym_RBRACK]"

definition tcl_small_run_14765 :: "nat list" where
  "tcl_small_run_14765 =
    [2, 1403, 1, tcl_anon_sym_LF, 1405, 2, tcl_anon_sym_SEMI, tcl_anon_sym_RBRACE]"

definition tcl_small_run_14773 :: "nat list" where
  "tcl_small_run_14773 =
    [3, 1371, 1, tcl_sym_simple_word, 1373, 1, tcl_anon_sym_LBRACE, 160, 1, tcl_sym_arguments]"

definition tcl_small_run_14783 :: "nat list" where
  "tcl_small_run_14783 =
    [2, 1407, 1, tcl_anon_sym_LF, 1409, 2, tcl_anon_sym_SEMI, tcl_anon_sym_RBRACE]"

definition tcl_small_run_14791 :: "nat list" where
  "tcl_small_run_14791 =
    [3, 1371, 1, tcl_sym_simple_word, 1373, 1, tcl_anon_sym_LBRACE, 146, 1, tcl_sym_arguments]"

definition tcl_small_run_14801 :: "nat list" where
  "tcl_small_run_14801 =
    [2, 1117, 1, tcl_anon_sym_LF, 1119, 2, tcl_anon_sym_SEMI, tcl_anon_sym_RBRACE]"

definition tcl_small_run_14809 :: "nat list" where
  "tcl_small_run_14809 =
    [3, 1371, 1, tcl_sym_simple_word, 1373, 1, tcl_anon_sym_LBRACE, 164, 1, tcl_sym_arguments]"

definition tcl_small_run_14819 :: "nat list" where
  "tcl_small_run_14819 =
    [3, 1371, 1, tcl_sym_simple_word, 1373, 1, tcl_anon_sym_LBRACE, 165, 1, tcl_sym_arguments]"

definition tcl_small_run_14829 :: "nat list" where
  "tcl_small_run_14829 =
    [2, 1411, 1, tcl_anon_sym_LF, 1413, 2, tcl_anon_sym_SEMI, tcl_anon_sym_RBRACE]"

definition tcl_small_run_14837 :: "nat list" where
  "tcl_small_run_14837 =
    [2, 1168, 1, tcl_anon_sym_LF, 1170, 2, tcl_anon_sym_SEMI, tcl_anon_sym_RBRACE]"

definition tcl_small_run_14845 :: "nat list" where
  "tcl_small_run_14845 =
    [1, 1415, 3, tcl_anon_sym_LBRACE, tcl_anon_sym_RBRACE, tcl_sym_simple_word]"

definition tcl_small_run_14851 :: "nat list" where
  "tcl_small_run_14851 =
    [2, 270, 1, tcl_anon_sym_LF, 272, 2, tcl_anon_sym_SEMI, tcl_anon_sym_RBRACE]"

definition tcl_small_run_14859 :: "nat list" where
  "tcl_small_run_14859 =
    [2, 1417, 1, tcl_anon_sym_LF, 1419, 2, tcl_anon_sym_SEMI, tcl_anon_sym_RBRACE]"

definition tcl_small_run_14867 :: "nat list" where
  "tcl_small_run_14867 =
    [2, 1421, 1, tcl_anon_sym_LF, 1423, 2, tcl_anon_sym_SEMI, tcl_anon_sym_RBRACE]"

definition tcl_small_run_14875 :: "nat list" where
  "tcl_small_run_14875 =
    [1, 322, 3, tcl_sym__concat, tcl_anon_sym_RPAREN, tcl_anon_sym_RBRACK]"

definition tcl_small_run_14881 :: "nat list" where
  "tcl_small_run_14881 =
    [2, 1425, 1, tcl_anon_sym_LF, 1427, 2, tcl_anon_sym_SEMI, tcl_anon_sym_RBRACE]"

definition tcl_small_run_14889 :: "nat list" where
  "tcl_small_run_14889 =
    [2, 1429, 1, tcl_anon_sym_LF, 1431, 2, tcl_anon_sym_SEMI, tcl_anon_sym_RBRACE]"

definition tcl_small_run_14897 :: "nat list" where
  "tcl_small_run_14897 =
    [2, 1433, 1, tcl_anon_sym_LF, 1435, 2, tcl_anon_sym_SEMI, tcl_anon_sym_RBRACE]"

definition tcl_small_run_14905 :: "nat list" where
  "tcl_small_run_14905 =
    [2, 274, 1, tcl_anon_sym_LF, 276, 2, tcl_anon_sym_SEMI, tcl_anon_sym_RBRACE]"

definition tcl_small_run_14913 :: "nat list" where
  "tcl_small_run_14913 =
    [2, 1437, 1, tcl_anon_sym_LF, 1439, 2, tcl_anon_sym_SEMI, tcl_anon_sym_RBRACE]"

definition tcl_small_run_14921 :: "nat list" where
  "tcl_small_run_14921 =
    [2, 282, 1, tcl_anon_sym_LF, 284, 2, tcl_anon_sym_SEMI, tcl_anon_sym_RBRACE]"

definition tcl_small_run_14929 :: "nat list" where
  "tcl_small_run_14929 =
    [1, 326, 3, tcl_sym__concat, tcl_anon_sym_RPAREN, tcl_anon_sym_RBRACK]"

definition tcl_small_run_14935 :: "nat list" where
  "tcl_small_run_14935 =
    [1, 1441, 3, tcl_anon_sym_LBRACE, tcl_anon_sym_RBRACE, tcl_sym_simple_word]"

definition tcl_small_run_14941 :: "nat list" where
  "tcl_small_run_14941 =
    [3, 1363, 1, tcl_sym_simple_word, 1365, 1, tcl_anon_sym_LBRACE, 262, 1, tcl_sym_arguments]"

definition tcl_small_run_14951 :: "nat list" where
  "tcl_small_run_14951 =
    [2, 1125, 1, tcl_anon_sym_else, 1123, 2, tcl_anon_sym_elseif, tcl_anon_sym_RBRACK]"

definition tcl_small_run_14959 :: "nat list" where
  "tcl_small_run_14959 =
    [3, 741, 1, tcl_anon_sym_RBRACK, 1231, 1, tcl_sym__concat, 597, 1,
      tcl_aux_sym__concat_word_repeat1]"

definition tcl_small_run_14969 :: "nat list" where
  "tcl_small_run_14969 =
    [3, 1371, 1, tcl_sym_simple_word, 1373, 1, tcl_anon_sym_LBRACE, 173, 1, tcl_sym_arguments]"

definition tcl_small_run_14979 :: "nat list" where
  "tcl_small_run_14979 =
    [3, 870, 1, tcl_anon_sym_RBRACK, 1231, 1, tcl_sym__concat, 599, 1,
      tcl_aux_sym__concat_word_repeat1]"

definition tcl_small_run_14989 :: "nat list" where
  "tcl_small_run_14989 =
    [3, 870, 1, tcl_anon_sym_RBRACK, 1231, 1, tcl_sym__concat, 600, 1,
      tcl_aux_sym__concat_word_repeat1]"

definition tcl_small_run_14999 :: "nat list" where
  "tcl_small_run_14999 =
    [3, 618, 1, tcl_anon_sym_RBRACK, 1443, 1, tcl_sym__concat, 599, 1,
      tcl_aux_sym__concat_word_repeat1]"

definition tcl_small_run_15009 :: "nat list" where
  "tcl_small_run_15009 =
    [3, 893, 1, tcl_anon_sym_RBRACK, 1231, 1, tcl_sym__concat, 599, 1,
      tcl_aux_sym__concat_word_repeat1]"

definition tcl_small_run_15019 :: "nat list" where
  "tcl_small_run_15019 =
    [3, 1371, 1, tcl_sym_simple_word, 1373, 1, tcl_anon_sym_LBRACE, 179, 1, tcl_sym_arguments]"

definition tcl_small_run_15029 :: "nat list" where
  "tcl_small_run_15029 =
    [2, 1446, 1, tcl_anon_sym_LF, 1448, 1, tcl_anon_sym_SEMI]"

definition tcl_small_run_15036 :: "nat list" where
  "tcl_small_run_15036 =
    [1, 1450, 1, tcl_anon_sym_RBRACK]"

definition tcl_small_run_15040 :: "nat list" where
  "tcl_small_run_15040 =
    [1, 1452, 1, tcl_sym__ident_imm]"

definition tcl_small_run_15044 :: "nat list" where
  "tcl_small_run_15044 =
    [1, 1454, 1, tcl_sym__ident_imm]"

definition tcl_small_run_15048 :: "nat list" where
  "tcl_small_run_15048 =
    [1, 1456, 1, tcl_anon_sym_RBRACE]"

definition tcl_small_run_15052 :: "nat list" where
  "tcl_small_run_15052 =
    [1, 1411, 1, tcl_anon_sym_RBRACK]"

definition tcl_small_run_15056 :: "nat list" where
  "tcl_small_run_15056 =
    [1, 1393, 1, tcl_anon_sym_RBRACK]"

definition tcl_small_run_15060 :: "nat list" where
  "tcl_small_run_15060 =
    [1, 1458, 1, tcl_anon_sym_RPAREN]"

definition tcl_small_run_15064 :: "nat list" where
  "tcl_small_run_15064 =
    [1, 1335, 1, tcl_anon_sym_RBRACK]"

definition tcl_small_run_15068 :: "nat list" where
  "tcl_small_run_15068 =
    [1, 1460, 1, tcl_anon_sym_error]"

definition tcl_small_run_15072 :: "nat list" where
  "tcl_small_run_15072 =
    [1, 1331, 1, tcl_anon_sym_RBRACK]"

definition tcl_small_run_15076 :: "nat list" where
  "tcl_small_run_15076 =
    [1, 1462, 1, tcl_sym__ident_imm]"

definition tcl_small_run_15080 :: "nat list" where
  "tcl_small_run_15080 =
    [1, 1464, 1, tcl_sym__ident_imm]"

definition tcl_small_run_15084 :: "nat list" where
  "tcl_small_run_15084 =
    [1, 1466, 1, tcl_anon_sym_RBRACK]"

definition tcl_small_run_15088 :: "nat list" where
  "tcl_small_run_15088 =
    [1, 1468, 1, tcl_sym__ident_imm]"

definition tcl_small_run_15092 :: "nat list" where
  "tcl_small_run_15092 =
    [1, 1470, 1, tcl_anon_sym_RBRACE]"

definition tcl_small_run_15096 :: "nat list" where
  "tcl_small_run_15096 =
    [1, 1472, 1, tcl_anon_sym_RPAREN]"

definition tcl_small_run_15100 :: "nat list" where
  "tcl_small_run_15100 =
    [1, 1474, 1, tcl_anon_sym_RBRACK]"

definition tcl_small_run_15104 :: "nat list" where
  "tcl_small_run_15104 =
    [1, 1323, 1, tcl_anon_sym_RBRACK]"

definition tcl_small_run_15108 :: "nat list" where
  "tcl_small_run_15108 =
    [1, 1476, 1, tcl_sym__ident_imm]"

definition tcl_small_run_15112 :: "nat list" where
  "tcl_small_run_15112 =
    [1, 1478, 1, tcl_anon_sym_RPAREN]"

definition tcl_small_run_15116 :: "nat list" where
  "tcl_small_run_15116 =
    [1, 1480, 1, tcl_anon_sym_RBRACK]"

definition tcl_small_run_15120 :: "nat list" where
  "tcl_small_run_15120 =
    [1, 1482, 1, tcl_sym__ident_imm]"

definition tcl_small_run_15124 :: "nat list" where
  "tcl_small_run_15124 =
    [1, 1484, 1, tcl_anon_sym_RBRACE]"

definition tcl_small_run_15128 :: "nat list" where
  "tcl_small_run_15128 =
    [1, 1486, 1, tcl_anon_sym_RPAREN]"

definition tcl_small_run_15132 :: "nat list" where
  "tcl_small_run_15132 =
    [1, 1343, 1, tcl_anon_sym_RBRACK]"

definition tcl_small_run_15136 :: "nat list" where
  "tcl_small_run_15136 =
    [1, 1168, 1, tcl_anon_sym_RBRACK]"

definition tcl_small_run_15140 :: "nat list" where
  "tcl_small_run_15140 =
    [1, 1488, 1, tcl_sym__ident_imm]"

definition tcl_small_run_15144 :: "nat list" where
  "tcl_small_run_15144 =
    [1, 1417, 1, tcl_anon_sym_RBRACK]"

definition tcl_small_run_15148 :: "nat list" where
  "tcl_small_run_15148 =
    [1, 1490, 1, tcl_anon_sym_RBRACE]"

definition tcl_small_run_15152 :: "nat list" where
  "tcl_small_run_15152 =
    [1, 1492, 1, tcl_sym__ident_imm]"

definition tcl_small_run_15156 :: "nat list" where
  "tcl_small_run_15156 =
    [1, 1494, 1, tcl_anon_sym_RBRACE]"

definition tcl_small_run_15160 :: "nat list" where
  "tcl_small_run_15160 =
    [1, 1496, 1, tcl_anon_sym_RPAREN]"

definition tcl_small_run_15164 :: "nat list" where
  "tcl_small_run_15164 =
    [1, 1383, 1, tcl_anon_sym_RBRACK]"

definition tcl_small_run_15168 :: "nat list" where
  "tcl_small_run_15168 =
    [1, 1093, 1, tcl_anon_sym_RBRACK]"

definition tcl_small_run_15172 :: "nat list" where
  "tcl_small_run_15172 =
    [1, 1498, 1, tcl_sym__ident_imm]"

definition tcl_small_run_15176 :: "nat list" where
  "tcl_small_run_15176 =
    [1, 1500, 1, tcl_sym__ident_imm]"

definition tcl_small_run_15180 :: "nat list" where
  "tcl_small_run_15180 =
    [1, 1502, 1, tcl_anon_sym_RBRACK]"

definition tcl_small_run_15184 :: "nat list" where
  "tcl_small_run_15184 =
    [1, 1504, 1, tcl_sym__ident_imm]"

definition tcl_small_run_15188 :: "nat list" where
  "tcl_small_run_15188 =
    [1, 1506, 1, tcl_anon_sym_RBRACE]"

definition tcl_small_run_15192 :: "nat list" where
  "tcl_small_run_15192 =
    [1, 1508, 1, tcl_anon_sym_RPAREN]"

definition tcl_small_run_15196 :: "nat list" where
  "tcl_small_run_15196 =
    [1, 1351, 1, tcl_anon_sym_RBRACK]"

definition tcl_small_run_15200 :: "nat list" where
  "tcl_small_run_15200 =
    [1, 1510, 1, tcl_sym__ident_imm]"

definition tcl_small_run_15204 :: "nat list" where
  "tcl_small_run_15204 =
    [1, 1512, 1, tcl_anon_sym_RBRACK]"

definition tcl_small_run_15208 :: "nat list" where
  "tcl_small_run_15208 =
    [1, 1514, 1, tcl_sym__ident_imm]"

definition tcl_small_run_15212 :: "nat list" where
  "tcl_small_run_15212 =
    [1, 1516, 1, tcl_anon_sym_RBRACE]"

definition tcl_small_run_15216 :: "nat list" where
  "tcl_small_run_15216 =
    [1, 1518, 1, tcl_anon_sym_RPAREN]"

definition tcl_small_run_15220 :: "nat list" where
  "tcl_small_run_15220 =
    [1, 1520, 1, tcl_sym__ident_imm]"

definition tcl_small_run_15224 :: "nat list" where
  "tcl_small_run_15224 =
    [1, 1522, 1, tcl_sym__ident_imm]"

definition tcl_small_run_15228 :: "nat list" where
  "tcl_small_run_15228 =
    [1, 1524, 1, tcl_anon_sym_RPAREN]"

definition tcl_small_run_15232 :: "nat list" where
  "tcl_small_run_15232 =
    [1, 1526, 1, tcl_sym__ident_imm]"

definition tcl_small_run_15236 :: "nat list" where
  "tcl_small_run_15236 =
    [1, 1528, 1, tcl_anon_sym_RPAREN]"

definition tcl_small_run_15240 :: "nat list" where
  "tcl_small_run_15240 =
    [1, 1530, 1, tcl_anon_sym_RBRACE]"

definition tcl_small_run_15244 :: "nat list" where
  "tcl_small_run_15244 =
    [1, 1532, 1, tcl_anon_sym_RBRACE]"

definition tcl_small_run_15248 :: "nat list" where
  "tcl_small_run_15248 =
    [1, 1215, 1, tcl_anon_sym_RBRACK]"

definition tcl_small_run_15252 :: "nat list" where
  "tcl_small_run_15252 =
    [1, 1359, 1, tcl_anon_sym_RBRACK]"

definition tcl_small_run_15256 :: "nat list" where
  "tcl_small_run_15256 =
    [1, 1534, 1, tcl_sym__ident_imm]"

definition tcl_small_run_15260 :: "nat list" where
  "tcl_small_run_15260 =
    [1, 1536, 1, tcl_anon_sym_error]"

definition tcl_small_run_15264 :: "nat list" where
  "tcl_small_run_15264 =
    [1, 1538, 1, tcl_aux_sym_variable_substitution_token1]"

definition tcl_small_run_15268 :: "nat list" where
  "tcl_small_run_15268 =
    [1, 1379, 1, tcl_anon_sym_RBRACK]"

definition tcl_small_run_15272 :: "nat list" where
  "tcl_small_run_15272 =
    [1, 1540, 1, tcl_anon_sym_RPAREN]"

definition tcl_small_run_15276 :: "nat list" where
  "tcl_small_run_15276 =
    [1, 1542, 1, tcl_anon_sym_RBRACK]"

definition tcl_small_run_15280 :: "nat list" where
  "tcl_small_run_15280 =
    [1, 1544, 1, tcl_sym_simple_word]"

definition tcl_small_run_15284 :: "nat list" where
  "tcl_small_run_15284 =
    [1, 1546, 1, tcl_anon_sym_LPAREN2]"

definition tcl_small_run_15288 :: "nat list" where
  "tcl_small_run_15288 =
    [1, 1548, 1, tcl_aux_sym_variable_substitution_token1]"

definition tcl_small_run_15292 :: "nat list" where
  "tcl_small_run_15292 =
    [1, 1399, 1, tcl_anon_sym_RBRACK]"

definition tcl_small_run_15296 :: "nat list" where
  "tcl_small_run_15296 =
    [1, 1407, 1, tcl_anon_sym_RBRACK]"

definition tcl_small_run_15300 :: "nat list" where
  "tcl_small_run_15300 =
    [1, 1550, 1, tcl_anon_sym_RBRACE]"

definition tcl_small_run_15304 :: "nat list" where
  "tcl_small_run_15304 =
    [1, 1552, 1, ts_builtin_sym_end]"

definition tcl_small_run_15308 :: "nat list" where
  "tcl_small_run_15308 =
    [1, 1099, 1, tcl_anon_sym_RBRACK]"

definition tcl_small_run_15312 :: "nat list" where
  "tcl_small_run_15312 =
    [1, 1327, 1, tcl_anon_sym_RBRACK]"

definition tcl_small_run_15316 :: "nat list" where
  "tcl_small_run_15316 =
    [1, 1554, 1, tcl_sym__ident_imm]"

definition tcl_small_run_15320 :: "nat list" where
  "tcl_small_run_15320 =
    [1, 1556, 1, tcl_sym__ident_imm]"

definition tcl_small_run_15324 :: "nat list" where
  "tcl_small_run_15324 =
    [1, 1558, 1, tcl_aux_sym_variable_substitution_token1]"

definition tcl_small_run_15328 :: "nat list" where
  "tcl_small_run_15328 =
    [1, 1560, 1, tcl_sym__ident_imm]"

definition tcl_small_run_15332 :: "nat list" where
  "tcl_small_run_15332 =
    [1, 1562, 1, tcl_aux_sym_variable_substitution_token1]"

definition tcl_small_run_15336 :: "nat list" where
  "tcl_small_run_15336 =
    [1, 1357, 1, tcl_anon_sym_RBRACK]"

definition tcl_small_run_15340 :: "nat list" where
  "tcl_small_run_15340 =
    [1, 1564, 1, tcl_aux_sym_variable_substitution_token1]"

definition tcl_small_run_15344 :: "nat list" where
  "tcl_small_run_15344 =
    [1, 1566, 1, tcl_anon_sym_RBRACK]"

definition tcl_small_run_15348 :: "nat list" where
  "tcl_small_run_15348 =
    [1, 1421, 1, tcl_anon_sym_RBRACK]"

definition tcl_small_run_15352 :: "nat list" where
  "tcl_small_run_15352 =
    [1, 1568, 1, tcl_aux_sym_variable_substitution_token1]"

definition tcl_small_run_15356 :: "nat list" where
  "tcl_small_run_15356 =
    [1, 1570, 1, tcl_anon_sym_RBRACK]"

definition tcl_small_run_15360 :: "nat list" where
  "tcl_small_run_15360 =
    [1, 1425, 1, tcl_anon_sym_RBRACK]"

definition tcl_small_run_15364 :: "nat list" where
  "tcl_small_run_15364 =
    [1, 1572, 1, tcl_aux_sym_variable_substitution_token1]"

definition tcl_small_run_15368 :: "nat list" where
  "tcl_small_run_15368 =
    [1, 1339, 1, tcl_anon_sym_RBRACK]"

definition tcl_small_run_15372 :: "nat list" where
  "tcl_small_run_15372 =
    [1, 1574, 1, tcl_sym__ident_imm]"

definition tcl_small_run_15376 :: "nat list" where
  "tcl_small_run_15376 =
    [1, 1576, 1, tcl_aux_sym_variable_substitution_token1]"

definition tcl_small_run_15380 :: "nat list" where
  "tcl_small_run_15380 =
    [1, 1578, 1, tcl_anon_sym_RBRACE]"

definition tcl_small_run_15384 :: "nat list" where
  "tcl_small_run_15384 =
    [1, 1580, 1, tcl_anon_sym_RBRACE]"

definition tcl_small_run_15388 :: "nat list" where
  "tcl_small_run_15388 =
    [1, 1582, 1, tcl_aux_sym_variable_substitution_token1]"

definition tcl_small_run_15392 :: "nat list" where
  "tcl_small_run_15392 =
    [1, 1429, 1, tcl_anon_sym_RBRACK]"

definition tcl_small_run_15396 :: "nat list" where
  "tcl_small_run_15396 =
    [1, 1347, 1, tcl_anon_sym_RBRACK]"

definition tcl_small_run_15400 :: "nat list" where
  "tcl_small_run_15400 =
    [1, 1584, 1, tcl_aux_sym_variable_substitution_token1]"

definition tcl_small_run_15404 :: "nat list" where
  "tcl_small_run_15404 =
    [1, 1433, 1, tcl_anon_sym_RBRACK]"

definition tcl_small_run_15408 :: "nat list" where
  "tcl_small_run_15408 =
    [1, 1586, 1, tcl_aux_sym_variable_substitution_token1]"

definition tcl_small_run_15412 :: "nat list" where
  "tcl_small_run_15412 =
    [1, 1588, 1, tcl_aux_sym_variable_substitution_token1]"

definition tcl_small_run_15416 :: "nat list" where
  "tcl_small_run_15416 =
    [1, 1590, 1, tcl_anon_sym_RPAREN]"

definition tcl_small_run_15420 :: "nat list" where
  "tcl_small_run_15420 =
    [1, 1403, 1, tcl_anon_sym_RBRACK]"

definition tcl_small_run_15424 :: "nat list" where
  "tcl_small_run_15424 =
    [1, 1592, 1, tcl_anon_sym_RBRACK]"

definition tcl_small_run_15428 :: "nat list" where
  "tcl_small_run_15428 =
    [1, 1375, 1, tcl_anon_sym_RBRACK]"

definition tcl_small_run_15432 :: "nat list" where
  "tcl_small_run_15432 =
    [1, 1594, 1, tcl_sym__ident_imm]"

definition tcl_small_run_15436 :: "nat list" where
  "tcl_small_run_15436 =
    [1, 1355, 1, tcl_anon_sym_RBRACK]"

definition tcl_small_run_15440 :: "nat list" where
  "tcl_small_run_15440 =
    [1, 1596, 1, tcl_anon_sym_LPAREN2]"

definition tcl_small_run_15444 :: "nat list" where
  "tcl_small_run_15444 =
    [1, 1598, 1, tcl_anon_sym_LBRACE]"

definition tcl_small_run_15448 :: "nat list" where
  "tcl_small_run_15448 =
    [1, 1387, 1, tcl_anon_sym_RBRACK]"

definition tcl_small_run_15452 :: "nat list" where
  "tcl_small_run_15452 =
    [1, 1600, 1, tcl_anon_sym_error]"

definition tcl_small_run_15456 :: "nat list" where
  "tcl_small_run_15456 =
    [1, 1602, 1, tcl_anon_sym_error]"

definition tcl_small_run_15460 :: "nat list" where
  "tcl_small_run_15460 =
    [1, 1604, 1, tcl_anon_sym_RBRACE]"

definition tcl_small_run_15464 :: "nat list" where
  "tcl_small_run_15464 =
    [1, 1367, 1, tcl_anon_sym_RBRACK]"

definition tcl_small_run_15468 :: "nat list" where
  "tcl_small_run_15468 =
    [1, 1606, 1, tcl_sym__ident_imm]"

definition tcl_small_run_15472 :: "nat list" where
  "tcl_small_run_15472 =
    [1, 1437, 1, tcl_anon_sym_RBRACK]"

definition tcl_small_run_15476 :: "nat list" where
  "tcl_small_run_15476 =
    [1, 1117, 1, tcl_anon_sym_RBRACK]"

definition tcl_small_run_15480 :: "nat list" where
  "tcl_small_run_15480 =
    [1, 1608, 1, tcl_anon_sym_LBRACE]"

definition tcl_small_run_15484 :: "nat list" where
  "tcl_small_run_15484 =
    [1, 1610, 1, tcl_anon_sym_LPAREN2]"

definition tcl_small_run_15488 :: "nat list" where
  "tcl_small_run_15488 =
    [1, 1612, 1, tcl_anon_sym_RPAREN]"

definition tcl_small_table_0 :: "(nat \<times> nat list) list" where
  "tcl_small_table_0 =
    [(0, tcl_small_run_0), (101, tcl_small_run_101), (202, tcl_small_run_202),
     (303, tcl_small_run_303), (404, tcl_small_run_404), (505, tcl_small_run_505),
     (606, tcl_small_run_606), (707, tcl_small_run_707), (808, tcl_small_run_808),
     (909, tcl_small_run_909), (1010, tcl_small_run_1010), (1111, tcl_small_run_1111),
     (1212, tcl_small_run_1212), (1310, tcl_small_run_1310), (1404, tcl_small_run_1404),
     (1498, tcl_small_run_1498), (1592, tcl_small_run_1592), (1686, tcl_small_run_1686),
     (1780, tcl_small_run_1780), (1871, tcl_small_run_1871), (1962, tcl_small_run_1962),
     (2053, tcl_small_run_2053), (2144, tcl_small_run_2144), (2235, tcl_small_run_2235),
     (2326, tcl_small_run_2326), (2417, tcl_small_run_2417), (2508, tcl_small_run_2508),
     (2599, tcl_small_run_2599), (2690, tcl_small_run_2690), (2733, tcl_small_run_2733),
     (2776, tcl_small_run_2776), (2819, tcl_small_run_2819), (2862, tcl_small_run_2862),
     (2905, tcl_small_run_2905), (2940, tcl_small_run_2940), (2979, tcl_small_run_2979),
     (3018, tcl_small_run_3018), (3051, tcl_small_run_3051), (3084, tcl_small_run_3084),
     (3117, tcl_small_run_3117), (3150, tcl_small_run_3150), (3183, tcl_small_run_3183),
     (3216, tcl_small_run_3216), (3249, tcl_small_run_3249), (3309, tcl_small_run_3309),
     (3341, tcl_small_run_3341), (3375, tcl_small_run_3375), (3415, tcl_small_run_3415),
     (3457, tcl_small_run_3457), (3503, tcl_small_run_3503), (3551, tcl_small_run_3551),
     (3601, tcl_small_run_3601), (3653, tcl_small_run_3653), (3707, tcl_small_run_3707),
     (3763, tcl_small_run_3763), (3819, tcl_small_run_3819), (3877, tcl_small_run_3877),
     (3909, tcl_small_run_3909), (3941, tcl_small_run_3941), (3973, tcl_small_run_3973)]"

definition tcl_small_table_1 :: "(nat \<times> nat list) list" where
  "tcl_small_table_1 =
    [(4005, tcl_small_run_4005), (4043, tcl_small_run_4043), (4103, tcl_small_run_4103),
     (4163, tcl_small_run_4163), (4223, tcl_small_run_4223), (4283, tcl_small_run_4283),
     (4343, tcl_small_run_4343), (4403, tcl_small_run_4403), (4463, tcl_small_run_4463),
     (4495, tcl_small_run_4495), (4555, tcl_small_run_4555), (4584, tcl_small_run_4584),
     (4627, tcl_small_run_4627), (4670, tcl_small_run_4670), (4713, tcl_small_run_4713),
     (4756, tcl_small_run_4756), (4799, tcl_small_run_4799), (4842, tcl_small_run_4842),
     (4885, tcl_small_run_4885), (4928, tcl_small_run_4928), (4971, tcl_small_run_4971),
     (5014, tcl_small_run_5014), (5057, tcl_small_run_5057), (5100, tcl_small_run_5100),
     (5143, tcl_small_run_5143), (5186, tcl_small_run_5186), (5229, tcl_small_run_5229),
     (5272, tcl_small_run_5272), (5315, tcl_small_run_5315), (5358, tcl_small_run_5358),
     (5401, tcl_small_run_5401), (5444, tcl_small_run_5444), (5487, tcl_small_run_5487),
     (5530, tcl_small_run_5530), (5573, tcl_small_run_5573), (5613, tcl_small_run_5613),
     (5653, tcl_small_run_5653), (5690, tcl_small_run_5690), (5727, tcl_small_run_5727),
     (5764, tcl_small_run_5764), (5790, tcl_small_run_5790), (5828, tcl_small_run_5828),
     (5854, tcl_small_run_5854), (5880, tcl_small_run_5880), (5918, tcl_small_run_5918),
     (5944, tcl_small_run_5944), (5970, tcl_small_run_5970), (5995, tcl_small_run_5995),
     (6030, tcl_small_run_6030), (6067, tcl_small_run_6067), (6102, tcl_small_run_6102),
     (6137, tcl_small_run_6137), (6168, tcl_small_run_6168), (6199, tcl_small_run_6199),
     (6234, tcl_small_run_6234), (6258, tcl_small_run_6258), (6282, tcl_small_run_6282),
     (6300, tcl_small_run_6300), (6330, tcl_small_run_6330), (6352, tcl_small_run_6352)]"

definition tcl_small_table_2 :: "(nat \<times> nat list) list" where
  "tcl_small_table_2 =
    [(6382, tcl_small_run_6382), (6406, tcl_small_run_6406), (6430, tcl_small_run_6430),
     (6454, tcl_small_run_6454), (6486, tcl_small_run_6486), (6518, tcl_small_run_6518),
     (6540, tcl_small_run_6540), (6572, tcl_small_run_6572), (6602, tcl_small_run_6602),
     (6634, tcl_small_run_6634), (6666, tcl_small_run_6666), (6688, tcl_small_run_6688),
     (6712, tcl_small_run_6712), (6744, tcl_small_run_6744), (6776, tcl_small_run_6776),
     (6808, tcl_small_run_6808), (6840, tcl_small_run_6840), (6870, tcl_small_run_6870),
     (6894, tcl_small_run_6894), (6926, tcl_small_run_6926), (6956, tcl_small_run_6956),
     (6980, tcl_small_run_6980), (7012, tcl_small_run_7012), (7036, tcl_small_run_7036),
     (7060, tcl_small_run_7060), (7091, tcl_small_run_7091), (7122, tcl_small_run_7122),
     (7151, tcl_small_run_7151), (7182, tcl_small_run_7182), (7213, tcl_small_run_7213),
     (7236, tcl_small_run_7236), (7267, tcl_small_run_7267), (7298, tcl_small_run_7298),
     (7329, tcl_small_run_7329), (7360, tcl_small_run_7360), (7389, tcl_small_run_7389),
     (7420, tcl_small_run_7420), (7451, tcl_small_run_7451), (7470, tcl_small_run_7470),
     (7501, tcl_small_run_7501), (7520, tcl_small_run_7520), (7545, tcl_small_run_7545),
     (7574, tcl_small_run_7574), (7605, tcl_small_run_7605), (7636, tcl_small_run_7636),
     (7659, tcl_small_run_7659), (7690, tcl_small_run_7690), (7721, tcl_small_run_7721),
     (7752, tcl_small_run_7752), (7783, tcl_small_run_7783), (7806, tcl_small_run_7806),
     (7835, tcl_small_run_7835), (7866, tcl_small_run_7866), (7897, tcl_small_run_7897),
     (7928, tcl_small_run_7928), (7957, tcl_small_run_7957), (7988, tcl_small_run_7988),
     (8017, tcl_small_run_8017), (8048, tcl_small_run_8048), (8079, tcl_small_run_8079)]"

definition tcl_small_table_3 :: "(nat \<times> nat list) list" where
  "tcl_small_table_3 =
    [(8102, tcl_small_run_8102), (8121, tcl_small_run_8121), (8140, tcl_small_run_8140),
     (8169, tcl_small_run_8169), (8198, tcl_small_run_8198), (8227, tcl_small_run_8227),
     (8258, tcl_small_run_8258), (8281, tcl_small_run_8281), (8304, tcl_small_run_8304),
     (8333, tcl_small_run_8333), (8356, tcl_small_run_8356), (8387, tcl_small_run_8387),
     (8418, tcl_small_run_8418), (8441, tcl_small_run_8441), (8472, tcl_small_run_8472),
     (8503, tcl_small_run_8503), (8526, tcl_small_run_8526), (8545, tcl_small_run_8545),
     (8574, tcl_small_run_8574), (8605, tcl_small_run_8605), (8628, tcl_small_run_8628),
     (8656, tcl_small_run_8656), (8684, tcl_small_run_8684), (8704, tcl_small_run_8704),
     (8726, tcl_small_run_8726), (8754, tcl_small_run_8754), (8782, tcl_small_run_8782),
     (8798, tcl_small_run_8798), (8826, tcl_small_run_8826), (8854, tcl_small_run_8854),
     (8870, tcl_small_run_8870), (8898, tcl_small_run_8898), (8920, tcl_small_run_8920),
     (8942, tcl_small_run_8942), (8964, tcl_small_run_8964), (8986, tcl_small_run_8986),
     (9008, tcl_small_run_9008), (9036, tcl_small_run_9036), (9064, tcl_small_run_9064),
     (9092, tcl_small_run_9092), (9120, tcl_small_run_9120), (9142, tcl_small_run_9142),
     (9170, tcl_small_run_9170), (9198, tcl_small_run_9198), (9226, tcl_small_run_9226),
     (9254, tcl_small_run_9254), (9278, tcl_small_run_9278), (9306, tcl_small_run_9306),
     (9334, tcl_small_run_9334), (9362, tcl_small_run_9362), (9390, tcl_small_run_9390),
     (9406, tcl_small_run_9406), (9434, tcl_small_run_9434), (9462, tcl_small_run_9462),
     (9478, tcl_small_run_9478), (9498, tcl_small_run_9498), (9520, tcl_small_run_9520),
     (9548, tcl_small_run_9548), (9576, tcl_small_run_9576), (9604, tcl_small_run_9604)]"

definition tcl_small_table_4 :: "(nat \<times> nat list) list" where
  "tcl_small_table_4 =
    [(9632, tcl_small_run_9632), (9660, tcl_small_run_9660), (9688, tcl_small_run_9688),
     (9716, tcl_small_run_9716), (9744, tcl_small_run_9744), (9772, tcl_small_run_9772),
     (9800, tcl_small_run_9800), (9828, tcl_small_run_9828), (9856, tcl_small_run_9856),
     (9884, tcl_small_run_9884), (9912, tcl_small_run_9912), (9928, tcl_small_run_9928),
     (9944, tcl_small_run_9944), (9966, tcl_small_run_9966), (9994, tcl_small_run_9994),
     (10016, tcl_small_run_10016), (10044, tcl_small_run_10044), (10072, tcl_small_run_10072),
     (10088, tcl_small_run_10088), (10108, tcl_small_run_10108), (10130, tcl_small_run_10130),
     (10158, tcl_small_run_10158), (10186, tcl_small_run_10186), (10202, tcl_small_run_10202),
     (10224, tcl_small_run_10224), (10252, tcl_small_run_10252), (10274, tcl_small_run_10274),
     (10302, tcl_small_run_10302), (10324, tcl_small_run_10324), (10352, tcl_small_run_10352),
     (10368, tcl_small_run_10368), (10396, tcl_small_run_10396), (10412, tcl_small_run_10412),
     (10440, tcl_small_run_10440), (10468, tcl_small_run_10468), (10490, tcl_small_run_10490),
     (10518, tcl_small_run_10518), (10546, tcl_small_run_10546), (10574, tcl_small_run_10574),
     (10602, tcl_small_run_10602), (10630, tcl_small_run_10630), (10658, tcl_small_run_10658),
     (10677, tcl_small_run_10677), (10690, tcl_small_run_10690), (10709, tcl_small_run_10709),
     (10722, tcl_small_run_10722), (10747, tcl_small_run_10747), (10762, tcl_small_run_10762),
     (10789, tcl_small_run_10789), (10808, tcl_small_run_10808), (10821, tcl_small_run_10821),
     (10840, tcl_small_run_10840), (10853, tcl_small_run_10853), (10878, tcl_small_run_10878),
     (10903, tcl_small_run_10903), (10916, tcl_small_run_10916), (10941, tcl_small_run_10941),
     (10960, tcl_small_run_10960), (10979, tcl_small_run_10979), (10998, tcl_small_run_10998)]"

definition tcl_small_table_5 :: "(nat \<times> nat list) list" where
  "tcl_small_table_5 =
    [(11023, tcl_small_run_11023), (11042, tcl_small_run_11042), (11061, tcl_small_run_11061),
     (11080, tcl_small_run_11080), (11095, tcl_small_run_11095), (11122, tcl_small_run_11122),
     (11140, tcl_small_run_11140), (11158, tcl_small_run_11158), (11172, tcl_small_run_11172),
     (11186, tcl_small_run_11186), (11206, tcl_small_run_11206), (11224, tcl_small_run_11224),
     (11238, tcl_small_run_11238), (11258, tcl_small_run_11258), (11276, tcl_small_run_11276),
     (11294, tcl_small_run_11294), (11308, tcl_small_run_11308), (11326, tcl_small_run_11326),
     (11350, tcl_small_run_11350), (11364, tcl_small_run_11364), (11378, tcl_small_run_11378),
     (11398, tcl_small_run_11398), (11418, tcl_small_run_11418), (11436, tcl_small_run_11436),
     (11450, tcl_small_run_11450), (11468, tcl_small_run_11468), (11482, tcl_small_run_11482),
     (11500, tcl_small_run_11500), (11518, tcl_small_run_11518), (11538, tcl_small_run_11538),
     (11552, tcl_small_run_11552), (11570, tcl_small_run_11570), (11588, tcl_small_run_11588),
     (11612, tcl_small_run_11612), (11624, tcl_small_run_11624), (11638, tcl_small_run_11638),
     (11660, tcl_small_run_11660), (11674, tcl_small_run_11674), (11692, tcl_small_run_11692),
     (11705, tcl_small_run_11705), (11724, tcl_small_run_11724), (11745, tcl_small_run_11745),
     (11758, tcl_small_run_11758), (11771, tcl_small_run_11771), (11790, tcl_small_run_11790),
     (11803, tcl_small_run_11803), (11822, tcl_small_run_11822), (11843, tcl_small_run_11843),
     (11856, tcl_small_run_11856), (11873, tcl_small_run_11873), (11886, tcl_small_run_11886),
     (11905, tcl_small_run_11905), (11924, tcl_small_run_11924), (11943, tcl_small_run_11943),
     (11962, tcl_small_run_11962), (11981, tcl_small_run_11981), (12000, tcl_small_run_12000),
     (12019, tcl_small_run_12019), (12038, tcl_small_run_12038), (12061, tcl_small_run_12061)]"

definition tcl_small_table_6 :: "(nat \<times> nat list) list" where
  "tcl_small_table_6 =
    [(12074, tcl_small_run_12074), (12097, tcl_small_run_12097), (12110, tcl_small_run_12110),
     (12123, tcl_small_run_12123), (12136, tcl_small_run_12136), (12149, tcl_small_run_12149),
     (12162, tcl_small_run_12162), (12175, tcl_small_run_12175), (12188, tcl_small_run_12188),
     (12207, tcl_small_run_12207), (12228, tcl_small_run_12228), (12241, tcl_small_run_12241),
     (12260, tcl_small_run_12260), (12277, tcl_small_run_12277), (12298, tcl_small_run_12298),
     (12317, tcl_small_run_12317), (12334, tcl_small_run_12334), (12347, tcl_small_run_12347),
     (12360, tcl_small_run_12360), (12383, tcl_small_run_12383), (12396, tcl_small_run_12396),
     (12409, tcl_small_run_12409), (12432, tcl_small_run_12432), (12445, tcl_small_run_12445),
     (12464, tcl_small_run_12464), (12477, tcl_small_run_12477), (12490, tcl_small_run_12490),
     (12503, tcl_small_run_12503), (12524, tcl_small_run_12524), (12543, tcl_small_run_12543),
     (12556, tcl_small_run_12556), (12569, tcl_small_run_12569), (12588, tcl_small_run_12588),
     (12609, tcl_small_run_12609), (12628, tcl_small_run_12628), (12647, tcl_small_run_12647),
     (12665, tcl_small_run_12665), (12681, tcl_small_run_12681), (12697, tcl_small_run_12697),
     (12713, tcl_small_run_12713), (12731, tcl_small_run_12731), (12747, tcl_small_run_12747),
     (12763, tcl_small_run_12763), (12781, tcl_small_run_12781), (12793, tcl_small_run_12793),
     (12807, tcl_small_run_12807), (12825, tcl_small_run_12825), (12843, tcl_small_run_12843),
     (12857, tcl_small_run_12857), (12875, tcl_small_run_12875), (12887, tcl_small_run_12887),
     (12901, tcl_small_run_12901), (12919, tcl_small_run_12919), (12933, tcl_small_run_12933),
     (12945, tcl_small_run_12945), (12957, tcl_small_run_12957), (12975, tcl_small_run_12975),
     (12991, tcl_small_run_12991), (13003, tcl_small_run_13003), (13015, tcl_small_run_13015)]"

definition tcl_small_table_7 :: "(nat \<times> nat list) list" where
  "tcl_small_table_7 =
    [(13031, tcl_small_run_13031), (13043, tcl_small_run_13043), (13055, tcl_small_run_13055),
     (13071, tcl_small_run_13071), (13083, tcl_small_run_13083), (13095, tcl_small_run_13095),
     (13107, tcl_small_run_13107), (13119, tcl_small_run_13119), (13131, tcl_small_run_13131),
     (13143, tcl_small_run_13143), (13155, tcl_small_run_13155), (13167, tcl_small_run_13167),
     (13185, tcl_small_run_13185), (13197, tcl_small_run_13197), (13215, tcl_small_run_13215),
     (13233, tcl_small_run_13233), (13251, tcl_small_run_13251), (13263, tcl_small_run_13263),
     (13274, tcl_small_run_13274), (13287, tcl_small_run_13287), (13298, tcl_small_run_13298),
     (13309, tcl_small_run_13309), (13320, tcl_small_run_13320), (13331, tcl_small_run_13331),
     (13342, tcl_small_run_13342), (13353, tcl_small_run_13353), (13364, tcl_small_run_13364),
     (13375, tcl_small_run_13375), (13394, tcl_small_run_13394), (13405, tcl_small_run_13405),
     (13416, tcl_small_run_13416), (13435, tcl_small_run_13435), (13454, tcl_small_run_13454),
     (13473, tcl_small_run_13473), (13490, tcl_small_run_13490), (13507, tcl_small_run_13507),
     (13524, tcl_small_run_13524), (13532, tcl_small_run_13532), (13542, tcl_small_run_13542),
     (13552, tcl_small_run_13552), (13568, tcl_small_run_13568), (13578, tcl_small_run_13578),
     (13586, tcl_small_run_13586), (13600, tcl_small_run_13600), (13616, tcl_small_run_13616),
     (13632, tcl_small_run_13632), (13646, tcl_small_run_13646), (13662, tcl_small_run_13662),
     (13676, tcl_small_run_13676), (13690, tcl_small_run_13690), (13704, tcl_small_run_13704),
     (13718, tcl_small_run_13718), (13728, tcl_small_run_13728), (13744, tcl_small_run_13744),
     (13752, tcl_small_run_13752), (13760, tcl_small_run_13760), (13768, tcl_small_run_13768),
     (13784, tcl_small_run_13784), (13800, tcl_small_run_13800), (13816, tcl_small_run_13816)]"

definition tcl_small_table_8 :: "(nat \<times> nat list) list" where
  "tcl_small_table_8 =
    [(13832, tcl_small_run_13832), (13842, tcl_small_run_13842), (13858, tcl_small_run_13858),
     (13866, tcl_small_run_13866), (13882, tcl_small_run_13882), (13896, tcl_small_run_13896),
     (13904, tcl_small_run_13904), (13920, tcl_small_run_13920), (13936, tcl_small_run_13936),
     (13950, tcl_small_run_13950), (13966, tcl_small_run_13966), (13982, tcl_small_run_13982),
     (13998, tcl_small_run_13998), (14006, tcl_small_run_14006), (14022, tcl_small_run_14022),
     (14032, tcl_small_run_14032), (14048, tcl_small_run_14048), (14062, tcl_small_run_14062),
     (14078, tcl_small_run_14078), (14094, tcl_small_run_14094), (14110, tcl_small_run_14110),
     (14126, tcl_small_run_14126), (14142, tcl_small_run_14142), (14150, tcl_small_run_14150),
     (14164, tcl_small_run_14164), (14172, tcl_small_run_14172), (14182, tcl_small_run_14182),
     (14192, tcl_small_run_14192), (14208, tcl_small_run_14208), (14222, tcl_small_run_14222),
     (14236, tcl_small_run_14236), (14250, tcl_small_run_14250), (14260, tcl_small_run_14260),
     (14271, tcl_small_run_14271), (14282, tcl_small_run_14282), (14291, tcl_small_run_14291),
     (14302, tcl_small_run_14302), (14313, tcl_small_run_14313), (14322, tcl_small_run_14322),
     (14335, tcl_small_run_14335), (14346, tcl_small_run_14346), (14353, tcl_small_run_14353),
     (14360, tcl_small_run_14360), (14373, tcl_small_run_14373), (14380, tcl_small_run_14380),
     (14387, tcl_small_run_14387), (14394, tcl_small_run_14394), (14407, tcl_small_run_14407),
     (14414, tcl_small_run_14414), (14425, tcl_small_run_14425), (14436, tcl_small_run_14436),
     (14449, tcl_small_run_14449), (14460, tcl_small_run_14460), (14469, tcl_small_run_14469),
     (14477, tcl_small_run_14477), (14485, tcl_small_run_14485), (14493, tcl_small_run_14493),
     (14501, tcl_small_run_14501), (14509, tcl_small_run_14509), (14517, tcl_small_run_14517)]"

definition tcl_small_table_9 :: "(nat \<times> nat list) list" where
  "tcl_small_table_9 =
    [(14527, tcl_small_run_14527), (14537, tcl_small_run_14537), (14547, tcl_small_run_14547),
     (14555, tcl_small_run_14555), (14563, tcl_small_run_14563), (14571, tcl_small_run_14571),
     (14579, tcl_small_run_14579), (14587, tcl_small_run_14587), (14595, tcl_small_run_14595),
     (14603, tcl_small_run_14603), (14611, tcl_small_run_14611), (14619, tcl_small_run_14619),
     (14627, tcl_small_run_14627), (14635, tcl_small_run_14635), (14645, tcl_small_run_14645),
     (14653, tcl_small_run_14653), (14663, tcl_small_run_14663), (14671, tcl_small_run_14671),
     (14681, tcl_small_run_14681), (14689, tcl_small_run_14689), (14697, tcl_small_run_14697),
     (14705, tcl_small_run_14705), (14713, tcl_small_run_14713), (14721, tcl_small_run_14721),
     (14729, tcl_small_run_14729), (14735, tcl_small_run_14735), (14743, tcl_small_run_14743),
     (14749, tcl_small_run_14749), (14757, tcl_small_run_14757), (14765, tcl_small_run_14765),
     (14773, tcl_small_run_14773), (14783, tcl_small_run_14783), (14791, tcl_small_run_14791),
     (14801, tcl_small_run_14801), (14809, tcl_small_run_14809), (14819, tcl_small_run_14819),
     (14829, tcl_small_run_14829), (14837, tcl_small_run_14837), (14845, tcl_small_run_14845),
     (14851, tcl_small_run_14851), (14859, tcl_small_run_14859), (14867, tcl_small_run_14867),
     (14875, tcl_small_run_14875), (14881, tcl_small_run_14881), (14889, tcl_small_run_14889),
     (14897, tcl_small_run_14897), (14905, tcl_small_run_14905), (14913, tcl_small_run_14913),
     (14921, tcl_small_run_14921), (14929, tcl_small_run_14929), (14935, tcl_small_run_14935),
     (14941, tcl_small_run_14941), (14951, tcl_small_run_14951), (14959, tcl_small_run_14959),
     (14969, tcl_small_run_14969), (14979, tcl_small_run_14979), (14989, tcl_small_run_14989),
     (14999, tcl_small_run_14999), (15009, tcl_small_run_15009), (15019, tcl_small_run_15019)]"

definition tcl_small_table_10 :: "(nat \<times> nat list) list" where
  "tcl_small_table_10 =
    [(15029, tcl_small_run_15029), (15036, tcl_small_run_15036), (15040, tcl_small_run_15040),
     (15044, tcl_small_run_15044), (15048, tcl_small_run_15048), (15052, tcl_small_run_15052),
     (15056, tcl_small_run_15056), (15060, tcl_small_run_15060), (15064, tcl_small_run_15064),
     (15068, tcl_small_run_15068), (15072, tcl_small_run_15072), (15076, tcl_small_run_15076),
     (15080, tcl_small_run_15080), (15084, tcl_small_run_15084), (15088, tcl_small_run_15088),
     (15092, tcl_small_run_15092), (15096, tcl_small_run_15096), (15100, tcl_small_run_15100),
     (15104, tcl_small_run_15104), (15108, tcl_small_run_15108), (15112, tcl_small_run_15112),
     (15116, tcl_small_run_15116), (15120, tcl_small_run_15120), (15124, tcl_small_run_15124),
     (15128, tcl_small_run_15128), (15132, tcl_small_run_15132), (15136, tcl_small_run_15136),
     (15140, tcl_small_run_15140), (15144, tcl_small_run_15144), (15148, tcl_small_run_15148),
     (15152, tcl_small_run_15152), (15156, tcl_small_run_15156), (15160, tcl_small_run_15160),
     (15164, tcl_small_run_15164), (15168, tcl_small_run_15168), (15172, tcl_small_run_15172),
     (15176, tcl_small_run_15176), (15180, tcl_small_run_15180), (15184, tcl_small_run_15184),
     (15188, tcl_small_run_15188), (15192, tcl_small_run_15192), (15196, tcl_small_run_15196),
     (15200, tcl_small_run_15200), (15204, tcl_small_run_15204), (15208, tcl_small_run_15208),
     (15212, tcl_small_run_15212), (15216, tcl_small_run_15216), (15220, tcl_small_run_15220),
     (15224, tcl_small_run_15224), (15228, tcl_small_run_15228), (15232, tcl_small_run_15232),
     (15236, tcl_small_run_15236), (15240, tcl_small_run_15240), (15244, tcl_small_run_15244),
     (15248, tcl_small_run_15248), (15252, tcl_small_run_15252), (15256, tcl_small_run_15256),
     (15260, tcl_small_run_15260), (15264, tcl_small_run_15264), (15268, tcl_small_run_15268)]"

definition tcl_small_table_11 :: "(nat \<times> nat list) list" where
  "tcl_small_table_11 =
    [(15272, tcl_small_run_15272), (15276, tcl_small_run_15276), (15280, tcl_small_run_15280),
     (15284, tcl_small_run_15284), (15288, tcl_small_run_15288), (15292, tcl_small_run_15292),
     (15296, tcl_small_run_15296), (15300, tcl_small_run_15300), (15304, tcl_small_run_15304),
     (15308, tcl_small_run_15308), (15312, tcl_small_run_15312), (15316, tcl_small_run_15316),
     (15320, tcl_small_run_15320), (15324, tcl_small_run_15324), (15328, tcl_small_run_15328),
     (15332, tcl_small_run_15332), (15336, tcl_small_run_15336), (15340, tcl_small_run_15340),
     (15344, tcl_small_run_15344), (15348, tcl_small_run_15348), (15352, tcl_small_run_15352),
     (15356, tcl_small_run_15356), (15360, tcl_small_run_15360), (15364, tcl_small_run_15364),
     (15368, tcl_small_run_15368), (15372, tcl_small_run_15372), (15376, tcl_small_run_15376),
     (15380, tcl_small_run_15380), (15384, tcl_small_run_15384), (15388, tcl_small_run_15388),
     (15392, tcl_small_run_15392), (15396, tcl_small_run_15396), (15400, tcl_small_run_15400),
     (15404, tcl_small_run_15404), (15408, tcl_small_run_15408), (15412, tcl_small_run_15412),
     (15416, tcl_small_run_15416), (15420, tcl_small_run_15420), (15424, tcl_small_run_15424),
     (15428, tcl_small_run_15428), (15432, tcl_small_run_15432), (15436, tcl_small_run_15436),
     (15440, tcl_small_run_15440), (15444, tcl_small_run_15444), (15448, tcl_small_run_15448),
     (15452, tcl_small_run_15452), (15456, tcl_small_run_15456), (15460, tcl_small_run_15460),
     (15464, tcl_small_run_15464), (15468, tcl_small_run_15468), (15472, tcl_small_run_15472),
     (15476, tcl_small_run_15476), (15480, tcl_small_run_15480), (15484, tcl_small_run_15484),
     (15488, tcl_small_run_15488)]"

definition tcl_ts_small_parse_table :: "(nat \<times> nat list) list" where
  "tcl_ts_small_parse_table = tcl_small_table_0 @ tcl_small_table_1 @ tcl_small_table_2 @
    tcl_small_table_3 @ tcl_small_table_4 @ tcl_small_table_5 @ tcl_small_table_6 @
    tcl_small_table_7 @ tcl_small_table_8 @ tcl_small_table_9 @ tcl_small_table_10 @
    tcl_small_table_11"

text \<open>\<^verbatim>\<open>SMALL_STATE(id)\<close> is \<^verbatim>\<open>id - LARGE_STATE_COUNT\<close>.\<close>

definition tcl_small_map_0 :: "(nat \<times> nat) list" where
  "tcl_small_map_0 =
    [(SMALL_STATE tcl_LARGE_STATE_COUNT 2, 0), (SMALL_STATE tcl_LARGE_STATE_COUNT 3, 101),
     (SMALL_STATE tcl_LARGE_STATE_COUNT 4, 202), (SMALL_STATE tcl_LARGE_STATE_COUNT 5, 303),
     (SMALL_STATE tcl_LARGE_STATE_COUNT 6, 404), (SMALL_STATE tcl_LARGE_STATE_COUNT 7, 505),
     (SMALL_STATE tcl_LARGE_STATE_COUNT 8, 606), (SMALL_STATE tcl_LARGE_STATE_COUNT 9, 707),
     (SMALL_STATE tcl_LARGE_STATE_COUNT 10, 808), (SMALL_STATE tcl_LARGE_STATE_COUNT 11, 909),
     (SMALL_STATE tcl_LARGE_STATE_COUNT 12, 1010), (SMALL_STATE tcl_LARGE_STATE_COUNT 13, 1111),
     (SMALL_STATE tcl_LARGE_STATE_COUNT 14, 1212), (SMALL_STATE tcl_LARGE_STATE_COUNT 15, 1310),
     (SMALL_STATE tcl_LARGE_STATE_COUNT 16, 1404), (SMALL_STATE tcl_LARGE_STATE_COUNT 17, 1498),
     (SMALL_STATE tcl_LARGE_STATE_COUNT 18, 1592), (SMALL_STATE tcl_LARGE_STATE_COUNT 19, 1686),
     (SMALL_STATE tcl_LARGE_STATE_COUNT 20, 1780), (SMALL_STATE tcl_LARGE_STATE_COUNT 21, 1871),
     (SMALL_STATE tcl_LARGE_STATE_COUNT 22, 1962), (SMALL_STATE tcl_LARGE_STATE_COUNT 23, 2053),
     (SMALL_STATE tcl_LARGE_STATE_COUNT 24, 2144), (SMALL_STATE tcl_LARGE_STATE_COUNT 25, 2235),
     (SMALL_STATE tcl_LARGE_STATE_COUNT 26, 2326), (SMALL_STATE tcl_LARGE_STATE_COUNT 27, 2417),
     (SMALL_STATE tcl_LARGE_STATE_COUNT 28, 2508), (SMALL_STATE tcl_LARGE_STATE_COUNT 29, 2599),
     (SMALL_STATE tcl_LARGE_STATE_COUNT 30, 2690), (SMALL_STATE tcl_LARGE_STATE_COUNT 31, 2733),
     (SMALL_STATE tcl_LARGE_STATE_COUNT 32, 2776), (SMALL_STATE tcl_LARGE_STATE_COUNT 33, 2819),
     (SMALL_STATE tcl_LARGE_STATE_COUNT 34, 2862), (SMALL_STATE tcl_LARGE_STATE_COUNT 35, 2905),
     (SMALL_STATE tcl_LARGE_STATE_COUNT 36, 2940), (SMALL_STATE tcl_LARGE_STATE_COUNT 37, 2979),
     (SMALL_STATE tcl_LARGE_STATE_COUNT 38, 3018), (SMALL_STATE tcl_LARGE_STATE_COUNT 39, 3051),
     (SMALL_STATE tcl_LARGE_STATE_COUNT 40, 3084), (SMALL_STATE tcl_LARGE_STATE_COUNT 41, 3117),
     (SMALL_STATE tcl_LARGE_STATE_COUNT 42, 3150), (SMALL_STATE tcl_LARGE_STATE_COUNT 43, 3183),
     (SMALL_STATE tcl_LARGE_STATE_COUNT 44, 3216), (SMALL_STATE tcl_LARGE_STATE_COUNT 45, 3249),
     (SMALL_STATE tcl_LARGE_STATE_COUNT 46, 3309), (SMALL_STATE tcl_LARGE_STATE_COUNT 47, 3341),
     (SMALL_STATE tcl_LARGE_STATE_COUNT 48, 3375), (SMALL_STATE tcl_LARGE_STATE_COUNT 49, 3415),
     (SMALL_STATE tcl_LARGE_STATE_COUNT 50, 3457), (SMALL_STATE tcl_LARGE_STATE_COUNT 51, 3503),
     (SMALL_STATE tcl_LARGE_STATE_COUNT 52, 3551), (SMALL_STATE tcl_LARGE_STATE_COUNT 53, 3601),
     (SMALL_STATE tcl_LARGE_STATE_COUNT 54, 3653), (SMALL_STATE tcl_LARGE_STATE_COUNT 55, 3707),
     (SMALL_STATE tcl_LARGE_STATE_COUNT 56, 3763), (SMALL_STATE tcl_LARGE_STATE_COUNT 57, 3819),
     (SMALL_STATE tcl_LARGE_STATE_COUNT 58, 3877), (SMALL_STATE tcl_LARGE_STATE_COUNT 59, 3909),
     (SMALL_STATE tcl_LARGE_STATE_COUNT 60, 3941), (SMALL_STATE tcl_LARGE_STATE_COUNT 61, 3973)]"

definition tcl_small_map_1 :: "(nat \<times> nat) list" where
  "tcl_small_map_1 =
    [(SMALL_STATE tcl_LARGE_STATE_COUNT 62, 4005), (SMALL_STATE tcl_LARGE_STATE_COUNT 63, 4043),
     (SMALL_STATE tcl_LARGE_STATE_COUNT 64, 4103), (SMALL_STATE tcl_LARGE_STATE_COUNT 65, 4163),
     (SMALL_STATE tcl_LARGE_STATE_COUNT 66, 4223), (SMALL_STATE tcl_LARGE_STATE_COUNT 67, 4283),
     (SMALL_STATE tcl_LARGE_STATE_COUNT 68, 4343), (SMALL_STATE tcl_LARGE_STATE_COUNT 69, 4403),
     (SMALL_STATE tcl_LARGE_STATE_COUNT 70, 4463), (SMALL_STATE tcl_LARGE_STATE_COUNT 71, 4495),
     (SMALL_STATE tcl_LARGE_STATE_COUNT 72, 4555), (SMALL_STATE tcl_LARGE_STATE_COUNT 73, 4584),
     (SMALL_STATE tcl_LARGE_STATE_COUNT 74, 4627), (SMALL_STATE tcl_LARGE_STATE_COUNT 75, 4670),
     (SMALL_STATE tcl_LARGE_STATE_COUNT 76, 4713), (SMALL_STATE tcl_LARGE_STATE_COUNT 77, 4756),
     (SMALL_STATE tcl_LARGE_STATE_COUNT 78, 4799), (SMALL_STATE tcl_LARGE_STATE_COUNT 79, 4842),
     (SMALL_STATE tcl_LARGE_STATE_COUNT 80, 4885), (SMALL_STATE tcl_LARGE_STATE_COUNT 81, 4928),
     (SMALL_STATE tcl_LARGE_STATE_COUNT 82, 4971), (SMALL_STATE tcl_LARGE_STATE_COUNT 83, 5014),
     (SMALL_STATE tcl_LARGE_STATE_COUNT 84, 5057), (SMALL_STATE tcl_LARGE_STATE_COUNT 85, 5100),
     (SMALL_STATE tcl_LARGE_STATE_COUNT 86, 5143), (SMALL_STATE tcl_LARGE_STATE_COUNT 87, 5186),
     (SMALL_STATE tcl_LARGE_STATE_COUNT 88, 5229), (SMALL_STATE tcl_LARGE_STATE_COUNT 89, 5272),
     (SMALL_STATE tcl_LARGE_STATE_COUNT 90, 5315), (SMALL_STATE tcl_LARGE_STATE_COUNT 91, 5358),
     (SMALL_STATE tcl_LARGE_STATE_COUNT 92, 5401), (SMALL_STATE tcl_LARGE_STATE_COUNT 93, 5444),
     (SMALL_STATE tcl_LARGE_STATE_COUNT 94, 5487), (SMALL_STATE tcl_LARGE_STATE_COUNT 95, 5530),
     (SMALL_STATE tcl_LARGE_STATE_COUNT 96, 5573), (SMALL_STATE tcl_LARGE_STATE_COUNT 97, 5613),
     (SMALL_STATE tcl_LARGE_STATE_COUNT 98, 5653), (SMALL_STATE tcl_LARGE_STATE_COUNT 99, 5690),
     (SMALL_STATE tcl_LARGE_STATE_COUNT 100, 5727), (SMALL_STATE tcl_LARGE_STATE_COUNT 101, 5764),
     (SMALL_STATE tcl_LARGE_STATE_COUNT 102, 5790), (SMALL_STATE tcl_LARGE_STATE_COUNT 103, 5828),
     (SMALL_STATE tcl_LARGE_STATE_COUNT 104, 5854), (SMALL_STATE tcl_LARGE_STATE_COUNT 105, 5880),
     (SMALL_STATE tcl_LARGE_STATE_COUNT 106, 5918), (SMALL_STATE tcl_LARGE_STATE_COUNT 107, 5944),
     (SMALL_STATE tcl_LARGE_STATE_COUNT 108, 5970), (SMALL_STATE tcl_LARGE_STATE_COUNT 109, 5995),
     (SMALL_STATE tcl_LARGE_STATE_COUNT 110, 6030), (SMALL_STATE tcl_LARGE_STATE_COUNT 111, 6067),
     (SMALL_STATE tcl_LARGE_STATE_COUNT 112, 6102), (SMALL_STATE tcl_LARGE_STATE_COUNT 113, 6137),
     (SMALL_STATE tcl_LARGE_STATE_COUNT 114, 6168), (SMALL_STATE tcl_LARGE_STATE_COUNT 115, 6199),
     (SMALL_STATE tcl_LARGE_STATE_COUNT 116, 6234), (SMALL_STATE tcl_LARGE_STATE_COUNT 117, 6258),
     (SMALL_STATE tcl_LARGE_STATE_COUNT 118, 6282), (SMALL_STATE tcl_LARGE_STATE_COUNT 119, 6300),
     (SMALL_STATE tcl_LARGE_STATE_COUNT 120, 6330), (SMALL_STATE tcl_LARGE_STATE_COUNT 121,
       6352)]"

definition tcl_small_map_2 :: "(nat \<times> nat) list" where
  "tcl_small_map_2 =
    [(SMALL_STATE tcl_LARGE_STATE_COUNT 122, 6382), (SMALL_STATE tcl_LARGE_STATE_COUNT 123, 6406),
     (SMALL_STATE tcl_LARGE_STATE_COUNT 124, 6430), (SMALL_STATE tcl_LARGE_STATE_COUNT 125, 6454),
     (SMALL_STATE tcl_LARGE_STATE_COUNT 126, 6486), (SMALL_STATE tcl_LARGE_STATE_COUNT 127, 6518),
     (SMALL_STATE tcl_LARGE_STATE_COUNT 128, 6540), (SMALL_STATE tcl_LARGE_STATE_COUNT 129, 6572),
     (SMALL_STATE tcl_LARGE_STATE_COUNT 130, 6602), (SMALL_STATE tcl_LARGE_STATE_COUNT 131, 6634),
     (SMALL_STATE tcl_LARGE_STATE_COUNT 132, 6666), (SMALL_STATE tcl_LARGE_STATE_COUNT 133, 6688),
     (SMALL_STATE tcl_LARGE_STATE_COUNT 134, 6712), (SMALL_STATE tcl_LARGE_STATE_COUNT 135, 6744),
     (SMALL_STATE tcl_LARGE_STATE_COUNT 136, 6776), (SMALL_STATE tcl_LARGE_STATE_COUNT 137, 6808),
     (SMALL_STATE tcl_LARGE_STATE_COUNT 138, 6840), (SMALL_STATE tcl_LARGE_STATE_COUNT 139, 6870),
     (SMALL_STATE tcl_LARGE_STATE_COUNT 140, 6894), (SMALL_STATE tcl_LARGE_STATE_COUNT 141, 6926),
     (SMALL_STATE tcl_LARGE_STATE_COUNT 142, 6956), (SMALL_STATE tcl_LARGE_STATE_COUNT 143, 6980),
     (SMALL_STATE tcl_LARGE_STATE_COUNT 144, 7012), (SMALL_STATE tcl_LARGE_STATE_COUNT 145, 7036),
     (SMALL_STATE tcl_LARGE_STATE_COUNT 146, 7060), (SMALL_STATE tcl_LARGE_STATE_COUNT 147, 7091),
     (SMALL_STATE tcl_LARGE_STATE_COUNT 148, 7122), (SMALL_STATE tcl_LARGE_STATE_COUNT 149, 7151),
     (SMALL_STATE tcl_LARGE_STATE_COUNT 150, 7182), (SMALL_STATE tcl_LARGE_STATE_COUNT 151, 7213),
     (SMALL_STATE tcl_LARGE_STATE_COUNT 152, 7236), (SMALL_STATE tcl_LARGE_STATE_COUNT 153, 7267),
     (SMALL_STATE tcl_LARGE_STATE_COUNT 154, 7298), (SMALL_STATE tcl_LARGE_STATE_COUNT 155, 7329),
     (SMALL_STATE tcl_LARGE_STATE_COUNT 156, 7360), (SMALL_STATE tcl_LARGE_STATE_COUNT 157, 7389),
     (SMALL_STATE tcl_LARGE_STATE_COUNT 158, 7420), (SMALL_STATE tcl_LARGE_STATE_COUNT 159, 7451),
     (SMALL_STATE tcl_LARGE_STATE_COUNT 160, 7470), (SMALL_STATE tcl_LARGE_STATE_COUNT 161, 7501),
     (SMALL_STATE tcl_LARGE_STATE_COUNT 162, 7520), (SMALL_STATE tcl_LARGE_STATE_COUNT 163, 7545),
     (SMALL_STATE tcl_LARGE_STATE_COUNT 164, 7574), (SMALL_STATE tcl_LARGE_STATE_COUNT 165, 7605),
     (SMALL_STATE tcl_LARGE_STATE_COUNT 166, 7636), (SMALL_STATE tcl_LARGE_STATE_COUNT 167, 7659),
     (SMALL_STATE tcl_LARGE_STATE_COUNT 168, 7690), (SMALL_STATE tcl_LARGE_STATE_COUNT 169, 7721),
     (SMALL_STATE tcl_LARGE_STATE_COUNT 170, 7752), (SMALL_STATE tcl_LARGE_STATE_COUNT 171, 7783),
     (SMALL_STATE tcl_LARGE_STATE_COUNT 172, 7806), (SMALL_STATE tcl_LARGE_STATE_COUNT 173, 7835),
     (SMALL_STATE tcl_LARGE_STATE_COUNT 174, 7866), (SMALL_STATE tcl_LARGE_STATE_COUNT 175, 7897),
     (SMALL_STATE tcl_LARGE_STATE_COUNT 176, 7928), (SMALL_STATE tcl_LARGE_STATE_COUNT 177, 7957),
     (SMALL_STATE tcl_LARGE_STATE_COUNT 178, 7988), (SMALL_STATE tcl_LARGE_STATE_COUNT 179, 8017),
     (SMALL_STATE tcl_LARGE_STATE_COUNT 180, 8048), (SMALL_STATE tcl_LARGE_STATE_COUNT 181,
       8079)]"

definition tcl_small_map_3 :: "(nat \<times> nat) list" where
  "tcl_small_map_3 =
    [(SMALL_STATE tcl_LARGE_STATE_COUNT 182, 8102), (SMALL_STATE tcl_LARGE_STATE_COUNT 183, 8121),
     (SMALL_STATE tcl_LARGE_STATE_COUNT 184, 8140), (SMALL_STATE tcl_LARGE_STATE_COUNT 185, 8169),
     (SMALL_STATE tcl_LARGE_STATE_COUNT 186, 8198), (SMALL_STATE tcl_LARGE_STATE_COUNT 187, 8227),
     (SMALL_STATE tcl_LARGE_STATE_COUNT 188, 8258), (SMALL_STATE tcl_LARGE_STATE_COUNT 189, 8281),
     (SMALL_STATE tcl_LARGE_STATE_COUNT 190, 8304), (SMALL_STATE tcl_LARGE_STATE_COUNT 191, 8333),
     (SMALL_STATE tcl_LARGE_STATE_COUNT 192, 8356), (SMALL_STATE tcl_LARGE_STATE_COUNT 193, 8387),
     (SMALL_STATE tcl_LARGE_STATE_COUNT 194, 8418), (SMALL_STATE tcl_LARGE_STATE_COUNT 195, 8441),
     (SMALL_STATE tcl_LARGE_STATE_COUNT 196, 8472), (SMALL_STATE tcl_LARGE_STATE_COUNT 197, 8503),
     (SMALL_STATE tcl_LARGE_STATE_COUNT 198, 8526), (SMALL_STATE tcl_LARGE_STATE_COUNT 199, 8545),
     (SMALL_STATE tcl_LARGE_STATE_COUNT 200, 8574), (SMALL_STATE tcl_LARGE_STATE_COUNT 201, 8605),
     (SMALL_STATE tcl_LARGE_STATE_COUNT 202, 8628), (SMALL_STATE tcl_LARGE_STATE_COUNT 203, 8656),
     (SMALL_STATE tcl_LARGE_STATE_COUNT 204, 8684), (SMALL_STATE tcl_LARGE_STATE_COUNT 205, 8704),
     (SMALL_STATE tcl_LARGE_STATE_COUNT 206, 8726), (SMALL_STATE tcl_LARGE_STATE_COUNT 207, 8754),
     (SMALL_STATE tcl_LARGE_STATE_COUNT 208, 8782), (SMALL_STATE tcl_LARGE_STATE_COUNT 209, 8798),
     (SMALL_STATE tcl_LARGE_STATE_COUNT 210, 8826), (SMALL_STATE tcl_LARGE_STATE_COUNT 211, 8854),
     (SMALL_STATE tcl_LARGE_STATE_COUNT 212, 8870), (SMALL_STATE tcl_LARGE_STATE_COUNT 213, 8898),
     (SMALL_STATE tcl_LARGE_STATE_COUNT 214, 8920), (SMALL_STATE tcl_LARGE_STATE_COUNT 215, 8942),
     (SMALL_STATE tcl_LARGE_STATE_COUNT 216, 8964), (SMALL_STATE tcl_LARGE_STATE_COUNT 217, 8986),
     (SMALL_STATE tcl_LARGE_STATE_COUNT 218, 9008), (SMALL_STATE tcl_LARGE_STATE_COUNT 219, 9036),
     (SMALL_STATE tcl_LARGE_STATE_COUNT 220, 9064), (SMALL_STATE tcl_LARGE_STATE_COUNT 221, 9092),
     (SMALL_STATE tcl_LARGE_STATE_COUNT 222, 9120), (SMALL_STATE tcl_LARGE_STATE_COUNT 223, 9142),
     (SMALL_STATE tcl_LARGE_STATE_COUNT 224, 9170), (SMALL_STATE tcl_LARGE_STATE_COUNT 225, 9198),
     (SMALL_STATE tcl_LARGE_STATE_COUNT 226, 9226), (SMALL_STATE tcl_LARGE_STATE_COUNT 227, 9254),
     (SMALL_STATE tcl_LARGE_STATE_COUNT 228, 9278), (SMALL_STATE tcl_LARGE_STATE_COUNT 229, 9306),
     (SMALL_STATE tcl_LARGE_STATE_COUNT 230, 9334), (SMALL_STATE tcl_LARGE_STATE_COUNT 231, 9362),
     (SMALL_STATE tcl_LARGE_STATE_COUNT 232, 9390), (SMALL_STATE tcl_LARGE_STATE_COUNT 233, 9406),
     (SMALL_STATE tcl_LARGE_STATE_COUNT 234, 9434), (SMALL_STATE tcl_LARGE_STATE_COUNT 235, 9462),
     (SMALL_STATE tcl_LARGE_STATE_COUNT 236, 9478), (SMALL_STATE tcl_LARGE_STATE_COUNT 237, 9498),
     (SMALL_STATE tcl_LARGE_STATE_COUNT 238, 9520), (SMALL_STATE tcl_LARGE_STATE_COUNT 239, 9548),
     (SMALL_STATE tcl_LARGE_STATE_COUNT 240, 9576), (SMALL_STATE tcl_LARGE_STATE_COUNT 241,
       9604)]"

definition tcl_small_map_4 :: "(nat \<times> nat) list" where
  "tcl_small_map_4 =
    [(SMALL_STATE tcl_LARGE_STATE_COUNT 242, 9632), (SMALL_STATE tcl_LARGE_STATE_COUNT 243, 9660),
     (SMALL_STATE tcl_LARGE_STATE_COUNT 244, 9688), (SMALL_STATE tcl_LARGE_STATE_COUNT 245, 9716),
     (SMALL_STATE tcl_LARGE_STATE_COUNT 246, 9744), (SMALL_STATE tcl_LARGE_STATE_COUNT 247, 9772),
     (SMALL_STATE tcl_LARGE_STATE_COUNT 248, 9800), (SMALL_STATE tcl_LARGE_STATE_COUNT 249, 9828),
     (SMALL_STATE tcl_LARGE_STATE_COUNT 250, 9856), (SMALL_STATE tcl_LARGE_STATE_COUNT 251, 9884),
     (SMALL_STATE tcl_LARGE_STATE_COUNT 252, 9912), (SMALL_STATE tcl_LARGE_STATE_COUNT 253, 9928),
     (SMALL_STATE tcl_LARGE_STATE_COUNT 254, 9944), (SMALL_STATE tcl_LARGE_STATE_COUNT 255, 9966),
     (SMALL_STATE tcl_LARGE_STATE_COUNT 256, 9994), (SMALL_STATE tcl_LARGE_STATE_COUNT 257,
       10016),
     (SMALL_STATE tcl_LARGE_STATE_COUNT 258, 10044), (SMALL_STATE tcl_LARGE_STATE_COUNT 259,
       10072),
     (SMALL_STATE tcl_LARGE_STATE_COUNT 260, 10088), (SMALL_STATE tcl_LARGE_STATE_COUNT 261,
       10108),
     (SMALL_STATE tcl_LARGE_STATE_COUNT 262, 10130), (SMALL_STATE tcl_LARGE_STATE_COUNT 263,
       10158),
     (SMALL_STATE tcl_LARGE_STATE_COUNT 264, 10186), (SMALL_STATE tcl_LARGE_STATE_COUNT 265,
       10202),
     (SMALL_STATE tcl_LARGE_STATE_COUNT 266, 10224), (SMALL_STATE tcl_LARGE_STATE_COUNT 267,
       10252),
     (SMALL_STATE tcl_LARGE_STATE_COUNT 268, 10274), (SMALL_STATE tcl_LARGE_STATE_COUNT 269,
       10302),
     (SMALL_STATE tcl_LARGE_STATE_COUNT 270, 10324), (SMALL_STATE tcl_LARGE_STATE_COUNT 271,
       10352),
     (SMALL_STATE tcl_LARGE_STATE_COUNT 272, 10368), (SMALL_STATE tcl_LARGE_STATE_COUNT 273,
       10396),
     (SMALL_STATE tcl_LARGE_STATE_COUNT 274, 10412), (SMALL_STATE tcl_LARGE_STATE_COUNT 275,
       10440),
     (SMALL_STATE tcl_LARGE_STATE_COUNT 276, 10468), (SMALL_STATE tcl_LARGE_STATE_COUNT 277,
       10490),
     (SMALL_STATE tcl_LARGE_STATE_COUNT 278, 10518), (SMALL_STATE tcl_LARGE_STATE_COUNT 279,
       10546),
     (SMALL_STATE tcl_LARGE_STATE_COUNT 280, 10574), (SMALL_STATE tcl_LARGE_STATE_COUNT 281,
       10602),
     (SMALL_STATE tcl_LARGE_STATE_COUNT 282, 10630), (SMALL_STATE tcl_LARGE_STATE_COUNT 283,
       10658),
     (SMALL_STATE tcl_LARGE_STATE_COUNT 284, 10677), (SMALL_STATE tcl_LARGE_STATE_COUNT 285,
       10690),
     (SMALL_STATE tcl_LARGE_STATE_COUNT 286, 10709), (SMALL_STATE tcl_LARGE_STATE_COUNT 287,
       10722),
     (SMALL_STATE tcl_LARGE_STATE_COUNT 288, 10747), (SMALL_STATE tcl_LARGE_STATE_COUNT 289,
       10762),
     (SMALL_STATE tcl_LARGE_STATE_COUNT 290, 10789), (SMALL_STATE tcl_LARGE_STATE_COUNT 291,
       10808),
     (SMALL_STATE tcl_LARGE_STATE_COUNT 292, 10821), (SMALL_STATE tcl_LARGE_STATE_COUNT 293,
       10840),
     (SMALL_STATE tcl_LARGE_STATE_COUNT 294, 10853), (SMALL_STATE tcl_LARGE_STATE_COUNT 295,
       10878),
     (SMALL_STATE tcl_LARGE_STATE_COUNT 296, 10903), (SMALL_STATE tcl_LARGE_STATE_COUNT 297,
       10916),
     (SMALL_STATE tcl_LARGE_STATE_COUNT 298, 10941), (SMALL_STATE tcl_LARGE_STATE_COUNT 299,
       10960),
     (SMALL_STATE tcl_LARGE_STATE_COUNT 300, 10979), (SMALL_STATE tcl_LARGE_STATE_COUNT 301,
       10998)]"

definition tcl_small_map_5 :: "(nat \<times> nat) list" where
  "tcl_small_map_5 =
    [(SMALL_STATE tcl_LARGE_STATE_COUNT 302, 11023), (SMALL_STATE tcl_LARGE_STATE_COUNT 303,
      11042),
     (SMALL_STATE tcl_LARGE_STATE_COUNT 304, 11061), (SMALL_STATE tcl_LARGE_STATE_COUNT 305,
       11080),
     (SMALL_STATE tcl_LARGE_STATE_COUNT 306, 11095), (SMALL_STATE tcl_LARGE_STATE_COUNT 307,
       11122),
     (SMALL_STATE tcl_LARGE_STATE_COUNT 308, 11140), (SMALL_STATE tcl_LARGE_STATE_COUNT 309,
       11158),
     (SMALL_STATE tcl_LARGE_STATE_COUNT 310, 11172), (SMALL_STATE tcl_LARGE_STATE_COUNT 311,
       11186),
     (SMALL_STATE tcl_LARGE_STATE_COUNT 312, 11206), (SMALL_STATE tcl_LARGE_STATE_COUNT 313,
       11224),
     (SMALL_STATE tcl_LARGE_STATE_COUNT 314, 11238), (SMALL_STATE tcl_LARGE_STATE_COUNT 315,
       11258),
     (SMALL_STATE tcl_LARGE_STATE_COUNT 316, 11276), (SMALL_STATE tcl_LARGE_STATE_COUNT 317,
       11294),
     (SMALL_STATE tcl_LARGE_STATE_COUNT 318, 11308), (SMALL_STATE tcl_LARGE_STATE_COUNT 319,
       11326),
     (SMALL_STATE tcl_LARGE_STATE_COUNT 320, 11350), (SMALL_STATE tcl_LARGE_STATE_COUNT 321,
       11364),
     (SMALL_STATE tcl_LARGE_STATE_COUNT 322, 11378), (SMALL_STATE tcl_LARGE_STATE_COUNT 323,
       11398),
     (SMALL_STATE tcl_LARGE_STATE_COUNT 324, 11418), (SMALL_STATE tcl_LARGE_STATE_COUNT 325,
       11436),
     (SMALL_STATE tcl_LARGE_STATE_COUNT 326, 11450), (SMALL_STATE tcl_LARGE_STATE_COUNT 327,
       11468),
     (SMALL_STATE tcl_LARGE_STATE_COUNT 328, 11482), (SMALL_STATE tcl_LARGE_STATE_COUNT 329,
       11500),
     (SMALL_STATE tcl_LARGE_STATE_COUNT 330, 11518), (SMALL_STATE tcl_LARGE_STATE_COUNT 331,
       11538),
     (SMALL_STATE tcl_LARGE_STATE_COUNT 332, 11552), (SMALL_STATE tcl_LARGE_STATE_COUNT 333,
       11570),
     (SMALL_STATE tcl_LARGE_STATE_COUNT 334, 11588), (SMALL_STATE tcl_LARGE_STATE_COUNT 335,
       11612),
     (SMALL_STATE tcl_LARGE_STATE_COUNT 336, 11624), (SMALL_STATE tcl_LARGE_STATE_COUNT 337,
       11638),
     (SMALL_STATE tcl_LARGE_STATE_COUNT 338, 11660), (SMALL_STATE tcl_LARGE_STATE_COUNT 339,
       11674),
     (SMALL_STATE tcl_LARGE_STATE_COUNT 340, 11692), (SMALL_STATE tcl_LARGE_STATE_COUNT 341,
       11705),
     (SMALL_STATE tcl_LARGE_STATE_COUNT 342, 11724), (SMALL_STATE tcl_LARGE_STATE_COUNT 343,
       11745),
     (SMALL_STATE tcl_LARGE_STATE_COUNT 344, 11758), (SMALL_STATE tcl_LARGE_STATE_COUNT 345,
       11771),
     (SMALL_STATE tcl_LARGE_STATE_COUNT 346, 11790), (SMALL_STATE tcl_LARGE_STATE_COUNT 347,
       11803),
     (SMALL_STATE tcl_LARGE_STATE_COUNT 348, 11822), (SMALL_STATE tcl_LARGE_STATE_COUNT 349,
       11843),
     (SMALL_STATE tcl_LARGE_STATE_COUNT 350, 11856), (SMALL_STATE tcl_LARGE_STATE_COUNT 351,
       11873),
     (SMALL_STATE tcl_LARGE_STATE_COUNT 352, 11886), (SMALL_STATE tcl_LARGE_STATE_COUNT 353,
       11905),
     (SMALL_STATE tcl_LARGE_STATE_COUNT 354, 11924), (SMALL_STATE tcl_LARGE_STATE_COUNT 355,
       11943),
     (SMALL_STATE tcl_LARGE_STATE_COUNT 356, 11962), (SMALL_STATE tcl_LARGE_STATE_COUNT 357,
       11981),
     (SMALL_STATE tcl_LARGE_STATE_COUNT 358, 12000), (SMALL_STATE tcl_LARGE_STATE_COUNT 359,
       12019),
     (SMALL_STATE tcl_LARGE_STATE_COUNT 360, 12038), (SMALL_STATE tcl_LARGE_STATE_COUNT 361,
       12061)]"

definition tcl_small_map_6 :: "(nat \<times> nat) list" where
  "tcl_small_map_6 =
    [(SMALL_STATE tcl_LARGE_STATE_COUNT 362, 12074), (SMALL_STATE tcl_LARGE_STATE_COUNT 363,
      12097),
     (SMALL_STATE tcl_LARGE_STATE_COUNT 364, 12110), (SMALL_STATE tcl_LARGE_STATE_COUNT 365,
       12123),
     (SMALL_STATE tcl_LARGE_STATE_COUNT 366, 12136), (SMALL_STATE tcl_LARGE_STATE_COUNT 367,
       12149),
     (SMALL_STATE tcl_LARGE_STATE_COUNT 368, 12162), (SMALL_STATE tcl_LARGE_STATE_COUNT 369,
       12175),
     (SMALL_STATE tcl_LARGE_STATE_COUNT 370, 12188), (SMALL_STATE tcl_LARGE_STATE_COUNT 371,
       12207),
     (SMALL_STATE tcl_LARGE_STATE_COUNT 372, 12228), (SMALL_STATE tcl_LARGE_STATE_COUNT 373,
       12241),
     (SMALL_STATE tcl_LARGE_STATE_COUNT 374, 12260), (SMALL_STATE tcl_LARGE_STATE_COUNT 375,
       12277),
     (SMALL_STATE tcl_LARGE_STATE_COUNT 376, 12298), (SMALL_STATE tcl_LARGE_STATE_COUNT 377,
       12317),
     (SMALL_STATE tcl_LARGE_STATE_COUNT 378, 12334), (SMALL_STATE tcl_LARGE_STATE_COUNT 379,
       12347),
     (SMALL_STATE tcl_LARGE_STATE_COUNT 380, 12360), (SMALL_STATE tcl_LARGE_STATE_COUNT 381,
       12383),
     (SMALL_STATE tcl_LARGE_STATE_COUNT 382, 12396), (SMALL_STATE tcl_LARGE_STATE_COUNT 383,
       12409),
     (SMALL_STATE tcl_LARGE_STATE_COUNT 384, 12432), (SMALL_STATE tcl_LARGE_STATE_COUNT 385,
       12445),
     (SMALL_STATE tcl_LARGE_STATE_COUNT 386, 12464), (SMALL_STATE tcl_LARGE_STATE_COUNT 387,
       12477),
     (SMALL_STATE tcl_LARGE_STATE_COUNT 388, 12490), (SMALL_STATE tcl_LARGE_STATE_COUNT 389,
       12503),
     (SMALL_STATE tcl_LARGE_STATE_COUNT 390, 12524), (SMALL_STATE tcl_LARGE_STATE_COUNT 391,
       12543),
     (SMALL_STATE tcl_LARGE_STATE_COUNT 392, 12556), (SMALL_STATE tcl_LARGE_STATE_COUNT 393,
       12569),
     (SMALL_STATE tcl_LARGE_STATE_COUNT 394, 12588), (SMALL_STATE tcl_LARGE_STATE_COUNT 395,
       12609),
     (SMALL_STATE tcl_LARGE_STATE_COUNT 396, 12628), (SMALL_STATE tcl_LARGE_STATE_COUNT 397,
       12647),
     (SMALL_STATE tcl_LARGE_STATE_COUNT 398, 12665), (SMALL_STATE tcl_LARGE_STATE_COUNT 399,
       12681),
     (SMALL_STATE tcl_LARGE_STATE_COUNT 400, 12697), (SMALL_STATE tcl_LARGE_STATE_COUNT 401,
       12713),
     (SMALL_STATE tcl_LARGE_STATE_COUNT 402, 12731), (SMALL_STATE tcl_LARGE_STATE_COUNT 403,
       12747),
     (SMALL_STATE tcl_LARGE_STATE_COUNT 404, 12763), (SMALL_STATE tcl_LARGE_STATE_COUNT 405,
       12781),
     (SMALL_STATE tcl_LARGE_STATE_COUNT 406, 12793), (SMALL_STATE tcl_LARGE_STATE_COUNT 407,
       12807),
     (SMALL_STATE tcl_LARGE_STATE_COUNT 408, 12825), (SMALL_STATE tcl_LARGE_STATE_COUNT 409,
       12843),
     (SMALL_STATE tcl_LARGE_STATE_COUNT 410, 12857), (SMALL_STATE tcl_LARGE_STATE_COUNT 411,
       12875),
     (SMALL_STATE tcl_LARGE_STATE_COUNT 412, 12887), (SMALL_STATE tcl_LARGE_STATE_COUNT 413,
       12901),
     (SMALL_STATE tcl_LARGE_STATE_COUNT 414, 12919), (SMALL_STATE tcl_LARGE_STATE_COUNT 415,
       12933),
     (SMALL_STATE tcl_LARGE_STATE_COUNT 416, 12945), (SMALL_STATE tcl_LARGE_STATE_COUNT 417,
       12957),
     (SMALL_STATE tcl_LARGE_STATE_COUNT 418, 12975), (SMALL_STATE tcl_LARGE_STATE_COUNT 419,
       12991),
     (SMALL_STATE tcl_LARGE_STATE_COUNT 420, 13003), (SMALL_STATE tcl_LARGE_STATE_COUNT 421,
       13015)]"

definition tcl_small_map_7 :: "(nat \<times> nat) list" where
  "tcl_small_map_7 =
    [(SMALL_STATE tcl_LARGE_STATE_COUNT 422, 13031), (SMALL_STATE tcl_LARGE_STATE_COUNT 423,
      13043),
     (SMALL_STATE tcl_LARGE_STATE_COUNT 424, 13055), (SMALL_STATE tcl_LARGE_STATE_COUNT 425,
       13071),
     (SMALL_STATE tcl_LARGE_STATE_COUNT 426, 13083), (SMALL_STATE tcl_LARGE_STATE_COUNT 427,
       13095),
     (SMALL_STATE tcl_LARGE_STATE_COUNT 428, 13107), (SMALL_STATE tcl_LARGE_STATE_COUNT 429,
       13119),
     (SMALL_STATE tcl_LARGE_STATE_COUNT 430, 13131), (SMALL_STATE tcl_LARGE_STATE_COUNT 431,
       13143),
     (SMALL_STATE tcl_LARGE_STATE_COUNT 432, 13155), (SMALL_STATE tcl_LARGE_STATE_COUNT 433,
       13167),
     (SMALL_STATE tcl_LARGE_STATE_COUNT 434, 13185), (SMALL_STATE tcl_LARGE_STATE_COUNT 435,
       13197),
     (SMALL_STATE tcl_LARGE_STATE_COUNT 436, 13215), (SMALL_STATE tcl_LARGE_STATE_COUNT 437,
       13233),
     (SMALL_STATE tcl_LARGE_STATE_COUNT 438, 13251), (SMALL_STATE tcl_LARGE_STATE_COUNT 439,
       13263),
     (SMALL_STATE tcl_LARGE_STATE_COUNT 440, 13274), (SMALL_STATE tcl_LARGE_STATE_COUNT 441,
       13287),
     (SMALL_STATE tcl_LARGE_STATE_COUNT 442, 13298), (SMALL_STATE tcl_LARGE_STATE_COUNT 443,
       13309),
     (SMALL_STATE tcl_LARGE_STATE_COUNT 444, 13320), (SMALL_STATE tcl_LARGE_STATE_COUNT 445,
       13331),
     (SMALL_STATE tcl_LARGE_STATE_COUNT 446, 13342), (SMALL_STATE tcl_LARGE_STATE_COUNT 447,
       13353),
     (SMALL_STATE tcl_LARGE_STATE_COUNT 448, 13364), (SMALL_STATE tcl_LARGE_STATE_COUNT 449,
       13375),
     (SMALL_STATE tcl_LARGE_STATE_COUNT 450, 13394), (SMALL_STATE tcl_LARGE_STATE_COUNT 451,
       13405),
     (SMALL_STATE tcl_LARGE_STATE_COUNT 452, 13416), (SMALL_STATE tcl_LARGE_STATE_COUNT 453,
       13435),
     (SMALL_STATE tcl_LARGE_STATE_COUNT 454, 13454), (SMALL_STATE tcl_LARGE_STATE_COUNT 455,
       13473),
     (SMALL_STATE tcl_LARGE_STATE_COUNT 456, 13490), (SMALL_STATE tcl_LARGE_STATE_COUNT 457,
       13507),
     (SMALL_STATE tcl_LARGE_STATE_COUNT 458, 13524), (SMALL_STATE tcl_LARGE_STATE_COUNT 459,
       13532),
     (SMALL_STATE tcl_LARGE_STATE_COUNT 460, 13542), (SMALL_STATE tcl_LARGE_STATE_COUNT 461,
       13552),
     (SMALL_STATE tcl_LARGE_STATE_COUNT 462, 13568), (SMALL_STATE tcl_LARGE_STATE_COUNT 463,
       13578),
     (SMALL_STATE tcl_LARGE_STATE_COUNT 464, 13586), (SMALL_STATE tcl_LARGE_STATE_COUNT 465,
       13600),
     (SMALL_STATE tcl_LARGE_STATE_COUNT 466, 13616), (SMALL_STATE tcl_LARGE_STATE_COUNT 467,
       13632),
     (SMALL_STATE tcl_LARGE_STATE_COUNT 468, 13646), (SMALL_STATE tcl_LARGE_STATE_COUNT 469,
       13662),
     (SMALL_STATE tcl_LARGE_STATE_COUNT 470, 13676), (SMALL_STATE tcl_LARGE_STATE_COUNT 471,
       13690),
     (SMALL_STATE tcl_LARGE_STATE_COUNT 472, 13704), (SMALL_STATE tcl_LARGE_STATE_COUNT 473,
       13718),
     (SMALL_STATE tcl_LARGE_STATE_COUNT 474, 13728), (SMALL_STATE tcl_LARGE_STATE_COUNT 475,
       13744),
     (SMALL_STATE tcl_LARGE_STATE_COUNT 476, 13752), (SMALL_STATE tcl_LARGE_STATE_COUNT 477,
       13760),
     (SMALL_STATE tcl_LARGE_STATE_COUNT 478, 13768), (SMALL_STATE tcl_LARGE_STATE_COUNT 479,
       13784),
     (SMALL_STATE tcl_LARGE_STATE_COUNT 480, 13800), (SMALL_STATE tcl_LARGE_STATE_COUNT 481,
       13816)]"

definition tcl_small_map_8 :: "(nat \<times> nat) list" where
  "tcl_small_map_8 =
    [(SMALL_STATE tcl_LARGE_STATE_COUNT 482, 13832), (SMALL_STATE tcl_LARGE_STATE_COUNT 483,
      13842),
     (SMALL_STATE tcl_LARGE_STATE_COUNT 484, 13858), (SMALL_STATE tcl_LARGE_STATE_COUNT 485,
       13866),
     (SMALL_STATE tcl_LARGE_STATE_COUNT 486, 13882), (SMALL_STATE tcl_LARGE_STATE_COUNT 487,
       13896),
     (SMALL_STATE tcl_LARGE_STATE_COUNT 488, 13904), (SMALL_STATE tcl_LARGE_STATE_COUNT 489,
       13920),
     (SMALL_STATE tcl_LARGE_STATE_COUNT 490, 13936), (SMALL_STATE tcl_LARGE_STATE_COUNT 491,
       13950),
     (SMALL_STATE tcl_LARGE_STATE_COUNT 492, 13966), (SMALL_STATE tcl_LARGE_STATE_COUNT 493,
       13982),
     (SMALL_STATE tcl_LARGE_STATE_COUNT 494, 13998), (SMALL_STATE tcl_LARGE_STATE_COUNT 495,
       14006),
     (SMALL_STATE tcl_LARGE_STATE_COUNT 496, 14022), (SMALL_STATE tcl_LARGE_STATE_COUNT 497,
       14032),
     (SMALL_STATE tcl_LARGE_STATE_COUNT 498, 14048), (SMALL_STATE tcl_LARGE_STATE_COUNT 499,
       14062),
     (SMALL_STATE tcl_LARGE_STATE_COUNT 500, 14078), (SMALL_STATE tcl_LARGE_STATE_COUNT 501,
       14094),
     (SMALL_STATE tcl_LARGE_STATE_COUNT 502, 14110), (SMALL_STATE tcl_LARGE_STATE_COUNT 503,
       14126),
     (SMALL_STATE tcl_LARGE_STATE_COUNT 504, 14142), (SMALL_STATE tcl_LARGE_STATE_COUNT 505,
       14150),
     (SMALL_STATE tcl_LARGE_STATE_COUNT 506, 14164), (SMALL_STATE tcl_LARGE_STATE_COUNT 507,
       14172),
     (SMALL_STATE tcl_LARGE_STATE_COUNT 508, 14182), (SMALL_STATE tcl_LARGE_STATE_COUNT 509,
       14192),
     (SMALL_STATE tcl_LARGE_STATE_COUNT 510, 14208), (SMALL_STATE tcl_LARGE_STATE_COUNT 511,
       14222),
     (SMALL_STATE tcl_LARGE_STATE_COUNT 512, 14236), (SMALL_STATE tcl_LARGE_STATE_COUNT 513,
       14250),
     (SMALL_STATE tcl_LARGE_STATE_COUNT 514, 14260), (SMALL_STATE tcl_LARGE_STATE_COUNT 515,
       14271),
     (SMALL_STATE tcl_LARGE_STATE_COUNT 516, 14282), (SMALL_STATE tcl_LARGE_STATE_COUNT 517,
       14291),
     (SMALL_STATE tcl_LARGE_STATE_COUNT 518, 14302), (SMALL_STATE tcl_LARGE_STATE_COUNT 519,
       14313),
     (SMALL_STATE tcl_LARGE_STATE_COUNT 520, 14322), (SMALL_STATE tcl_LARGE_STATE_COUNT 521,
       14335),
     (SMALL_STATE tcl_LARGE_STATE_COUNT 522, 14346), (SMALL_STATE tcl_LARGE_STATE_COUNT 523,
       14353),
     (SMALL_STATE tcl_LARGE_STATE_COUNT 524, 14360), (SMALL_STATE tcl_LARGE_STATE_COUNT 525,
       14373),
     (SMALL_STATE tcl_LARGE_STATE_COUNT 526, 14380), (SMALL_STATE tcl_LARGE_STATE_COUNT 527,
       14387),
     (SMALL_STATE tcl_LARGE_STATE_COUNT 528, 14394), (SMALL_STATE tcl_LARGE_STATE_COUNT 529,
       14407),
     (SMALL_STATE tcl_LARGE_STATE_COUNT 530, 14414), (SMALL_STATE tcl_LARGE_STATE_COUNT 531,
       14425),
     (SMALL_STATE tcl_LARGE_STATE_COUNT 532, 14436), (SMALL_STATE tcl_LARGE_STATE_COUNT 533,
       14449),
     (SMALL_STATE tcl_LARGE_STATE_COUNT 534, 14460), (SMALL_STATE tcl_LARGE_STATE_COUNT 535,
       14469),
     (SMALL_STATE tcl_LARGE_STATE_COUNT 536, 14477), (SMALL_STATE tcl_LARGE_STATE_COUNT 537,
       14485),
     (SMALL_STATE tcl_LARGE_STATE_COUNT 538, 14493), (SMALL_STATE tcl_LARGE_STATE_COUNT 539,
       14501),
     (SMALL_STATE tcl_LARGE_STATE_COUNT 540, 14509), (SMALL_STATE tcl_LARGE_STATE_COUNT 541,
       14517)]"

definition tcl_small_map_9 :: "(nat \<times> nat) list" where
  "tcl_small_map_9 =
    [(SMALL_STATE tcl_LARGE_STATE_COUNT 542, 14527), (SMALL_STATE tcl_LARGE_STATE_COUNT 543,
      14537),
     (SMALL_STATE tcl_LARGE_STATE_COUNT 544, 14547), (SMALL_STATE tcl_LARGE_STATE_COUNT 545,
       14555),
     (SMALL_STATE tcl_LARGE_STATE_COUNT 546, 14563), (SMALL_STATE tcl_LARGE_STATE_COUNT 547,
       14571),
     (SMALL_STATE tcl_LARGE_STATE_COUNT 548, 14579), (SMALL_STATE tcl_LARGE_STATE_COUNT 549,
       14587),
     (SMALL_STATE tcl_LARGE_STATE_COUNT 550, 14595), (SMALL_STATE tcl_LARGE_STATE_COUNT 551,
       14603),
     (SMALL_STATE tcl_LARGE_STATE_COUNT 552, 14611), (SMALL_STATE tcl_LARGE_STATE_COUNT 553,
       14619),
     (SMALL_STATE tcl_LARGE_STATE_COUNT 554, 14627), (SMALL_STATE tcl_LARGE_STATE_COUNT 555,
       14635),
     (SMALL_STATE tcl_LARGE_STATE_COUNT 556, 14645), (SMALL_STATE tcl_LARGE_STATE_COUNT 557,
       14653),
     (SMALL_STATE tcl_LARGE_STATE_COUNT 558, 14663), (SMALL_STATE tcl_LARGE_STATE_COUNT 559,
       14671),
     (SMALL_STATE tcl_LARGE_STATE_COUNT 560, 14681), (SMALL_STATE tcl_LARGE_STATE_COUNT 561,
       14689),
     (SMALL_STATE tcl_LARGE_STATE_COUNT 562, 14697), (SMALL_STATE tcl_LARGE_STATE_COUNT 563,
       14705),
     (SMALL_STATE tcl_LARGE_STATE_COUNT 564, 14713), (SMALL_STATE tcl_LARGE_STATE_COUNT 565,
       14721),
     (SMALL_STATE tcl_LARGE_STATE_COUNT 566, 14729), (SMALL_STATE tcl_LARGE_STATE_COUNT 567,
       14735),
     (SMALL_STATE tcl_LARGE_STATE_COUNT 568, 14743), (SMALL_STATE tcl_LARGE_STATE_COUNT 569,
       14749),
     (SMALL_STATE tcl_LARGE_STATE_COUNT 570, 14757), (SMALL_STATE tcl_LARGE_STATE_COUNT 571,
       14765),
     (SMALL_STATE tcl_LARGE_STATE_COUNT 572, 14773), (SMALL_STATE tcl_LARGE_STATE_COUNT 573,
       14783),
     (SMALL_STATE tcl_LARGE_STATE_COUNT 574, 14791), (SMALL_STATE tcl_LARGE_STATE_COUNT 575,
       14801),
     (SMALL_STATE tcl_LARGE_STATE_COUNT 576, 14809), (SMALL_STATE tcl_LARGE_STATE_COUNT 577,
       14819),
     (SMALL_STATE tcl_LARGE_STATE_COUNT 578, 14829), (SMALL_STATE tcl_LARGE_STATE_COUNT 579,
       14837),
     (SMALL_STATE tcl_LARGE_STATE_COUNT 580, 14845), (SMALL_STATE tcl_LARGE_STATE_COUNT 581,
       14851),
     (SMALL_STATE tcl_LARGE_STATE_COUNT 582, 14859), (SMALL_STATE tcl_LARGE_STATE_COUNT 583,
       14867),
     (SMALL_STATE tcl_LARGE_STATE_COUNT 584, 14875), (SMALL_STATE tcl_LARGE_STATE_COUNT 585,
       14881),
     (SMALL_STATE tcl_LARGE_STATE_COUNT 586, 14889), (SMALL_STATE tcl_LARGE_STATE_COUNT 587,
       14897),
     (SMALL_STATE tcl_LARGE_STATE_COUNT 588, 14905), (SMALL_STATE tcl_LARGE_STATE_COUNT 589,
       14913),
     (SMALL_STATE tcl_LARGE_STATE_COUNT 590, 14921), (SMALL_STATE tcl_LARGE_STATE_COUNT 591,
       14929),
     (SMALL_STATE tcl_LARGE_STATE_COUNT 592, 14935), (SMALL_STATE tcl_LARGE_STATE_COUNT 593,
       14941),
     (SMALL_STATE tcl_LARGE_STATE_COUNT 594, 14951), (SMALL_STATE tcl_LARGE_STATE_COUNT 595,
       14959),
     (SMALL_STATE tcl_LARGE_STATE_COUNT 596, 14969), (SMALL_STATE tcl_LARGE_STATE_COUNT 597,
       14979),
     (SMALL_STATE tcl_LARGE_STATE_COUNT 598, 14989), (SMALL_STATE tcl_LARGE_STATE_COUNT 599,
       14999),
     (SMALL_STATE tcl_LARGE_STATE_COUNT 600, 15009), (SMALL_STATE tcl_LARGE_STATE_COUNT 601,
       15019)]"

definition tcl_small_map_10 :: "(nat \<times> nat) list" where
  "tcl_small_map_10 =
    [(SMALL_STATE tcl_LARGE_STATE_COUNT 602, 15029), (SMALL_STATE tcl_LARGE_STATE_COUNT 603,
      15036),
     (SMALL_STATE tcl_LARGE_STATE_COUNT 604, 15040), (SMALL_STATE tcl_LARGE_STATE_COUNT 605,
       15044),
     (SMALL_STATE tcl_LARGE_STATE_COUNT 606, 15048), (SMALL_STATE tcl_LARGE_STATE_COUNT 607,
       15052),
     (SMALL_STATE tcl_LARGE_STATE_COUNT 608, 15056), (SMALL_STATE tcl_LARGE_STATE_COUNT 609,
       15060),
     (SMALL_STATE tcl_LARGE_STATE_COUNT 610, 15064), (SMALL_STATE tcl_LARGE_STATE_COUNT 611,
       15068),
     (SMALL_STATE tcl_LARGE_STATE_COUNT 612, 15072), (SMALL_STATE tcl_LARGE_STATE_COUNT 613,
       15076),
     (SMALL_STATE tcl_LARGE_STATE_COUNT 614, 15080), (SMALL_STATE tcl_LARGE_STATE_COUNT 615,
       15084),
     (SMALL_STATE tcl_LARGE_STATE_COUNT 616, 15088), (SMALL_STATE tcl_LARGE_STATE_COUNT 617,
       15092),
     (SMALL_STATE tcl_LARGE_STATE_COUNT 618, 15096), (SMALL_STATE tcl_LARGE_STATE_COUNT 619,
       15100),
     (SMALL_STATE tcl_LARGE_STATE_COUNT 620, 15104), (SMALL_STATE tcl_LARGE_STATE_COUNT 621,
       15108),
     (SMALL_STATE tcl_LARGE_STATE_COUNT 622, 15112), (SMALL_STATE tcl_LARGE_STATE_COUNT 623,
       15116),
     (SMALL_STATE tcl_LARGE_STATE_COUNT 624, 15120), (SMALL_STATE tcl_LARGE_STATE_COUNT 625,
       15124),
     (SMALL_STATE tcl_LARGE_STATE_COUNT 626, 15128), (SMALL_STATE tcl_LARGE_STATE_COUNT 627,
       15132),
     (SMALL_STATE tcl_LARGE_STATE_COUNT 628, 15136), (SMALL_STATE tcl_LARGE_STATE_COUNT 629,
       15140),
     (SMALL_STATE tcl_LARGE_STATE_COUNT 630, 15144), (SMALL_STATE tcl_LARGE_STATE_COUNT 631,
       15148),
     (SMALL_STATE tcl_LARGE_STATE_COUNT 632, 15152), (SMALL_STATE tcl_LARGE_STATE_COUNT 633,
       15156),
     (SMALL_STATE tcl_LARGE_STATE_COUNT 634, 15160), (SMALL_STATE tcl_LARGE_STATE_COUNT 635,
       15164),
     (SMALL_STATE tcl_LARGE_STATE_COUNT 636, 15168), (SMALL_STATE tcl_LARGE_STATE_COUNT 637,
       15172),
     (SMALL_STATE tcl_LARGE_STATE_COUNT 638, 15176), (SMALL_STATE tcl_LARGE_STATE_COUNT 639,
       15180),
     (SMALL_STATE tcl_LARGE_STATE_COUNT 640, 15184), (SMALL_STATE tcl_LARGE_STATE_COUNT 641,
       15188),
     (SMALL_STATE tcl_LARGE_STATE_COUNT 642, 15192), (SMALL_STATE tcl_LARGE_STATE_COUNT 643,
       15196),
     (SMALL_STATE tcl_LARGE_STATE_COUNT 644, 15200), (SMALL_STATE tcl_LARGE_STATE_COUNT 645,
       15204),
     (SMALL_STATE tcl_LARGE_STATE_COUNT 646, 15208), (SMALL_STATE tcl_LARGE_STATE_COUNT 647,
       15212),
     (SMALL_STATE tcl_LARGE_STATE_COUNT 648, 15216), (SMALL_STATE tcl_LARGE_STATE_COUNT 649,
       15220),
     (SMALL_STATE tcl_LARGE_STATE_COUNT 650, 15224), (SMALL_STATE tcl_LARGE_STATE_COUNT 651,
       15228),
     (SMALL_STATE tcl_LARGE_STATE_COUNT 652, 15232), (SMALL_STATE tcl_LARGE_STATE_COUNT 653,
       15236),
     (SMALL_STATE tcl_LARGE_STATE_COUNT 654, 15240), (SMALL_STATE tcl_LARGE_STATE_COUNT 655,
       15244),
     (SMALL_STATE tcl_LARGE_STATE_COUNT 656, 15248), (SMALL_STATE tcl_LARGE_STATE_COUNT 657,
       15252),
     (SMALL_STATE tcl_LARGE_STATE_COUNT 658, 15256), (SMALL_STATE tcl_LARGE_STATE_COUNT 659,
       15260),
     (SMALL_STATE tcl_LARGE_STATE_COUNT 660, 15264), (SMALL_STATE tcl_LARGE_STATE_COUNT 661,
       15268)]"

definition tcl_small_map_11 :: "(nat \<times> nat) list" where
  "tcl_small_map_11 =
    [(SMALL_STATE tcl_LARGE_STATE_COUNT 662, 15272), (SMALL_STATE tcl_LARGE_STATE_COUNT 663,
      15276),
     (SMALL_STATE tcl_LARGE_STATE_COUNT 664, 15280), (SMALL_STATE tcl_LARGE_STATE_COUNT 665,
       15284),
     (SMALL_STATE tcl_LARGE_STATE_COUNT 666, 15288), (SMALL_STATE tcl_LARGE_STATE_COUNT 667,
       15292),
     (SMALL_STATE tcl_LARGE_STATE_COUNT 668, 15296), (SMALL_STATE tcl_LARGE_STATE_COUNT 669,
       15300),
     (SMALL_STATE tcl_LARGE_STATE_COUNT 670, 15304), (SMALL_STATE tcl_LARGE_STATE_COUNT 671,
       15308),
     (SMALL_STATE tcl_LARGE_STATE_COUNT 672, 15312), (SMALL_STATE tcl_LARGE_STATE_COUNT 673,
       15316),
     (SMALL_STATE tcl_LARGE_STATE_COUNT 674, 15320), (SMALL_STATE tcl_LARGE_STATE_COUNT 675,
       15324),
     (SMALL_STATE tcl_LARGE_STATE_COUNT 676, 15328), (SMALL_STATE tcl_LARGE_STATE_COUNT 677,
       15332),
     (SMALL_STATE tcl_LARGE_STATE_COUNT 678, 15336), (SMALL_STATE tcl_LARGE_STATE_COUNT 679,
       15340),
     (SMALL_STATE tcl_LARGE_STATE_COUNT 680, 15344), (SMALL_STATE tcl_LARGE_STATE_COUNT 681,
       15348),
     (SMALL_STATE tcl_LARGE_STATE_COUNT 682, 15352), (SMALL_STATE tcl_LARGE_STATE_COUNT 683,
       15356),
     (SMALL_STATE tcl_LARGE_STATE_COUNT 684, 15360), (SMALL_STATE tcl_LARGE_STATE_COUNT 685,
       15364),
     (SMALL_STATE tcl_LARGE_STATE_COUNT 686, 15368), (SMALL_STATE tcl_LARGE_STATE_COUNT 687,
       15372),
     (SMALL_STATE tcl_LARGE_STATE_COUNT 688, 15376), (SMALL_STATE tcl_LARGE_STATE_COUNT 689,
       15380),
     (SMALL_STATE tcl_LARGE_STATE_COUNT 690, 15384), (SMALL_STATE tcl_LARGE_STATE_COUNT 691,
       15388),
     (SMALL_STATE tcl_LARGE_STATE_COUNT 692, 15392), (SMALL_STATE tcl_LARGE_STATE_COUNT 693,
       15396),
     (SMALL_STATE tcl_LARGE_STATE_COUNT 694, 15400), (SMALL_STATE tcl_LARGE_STATE_COUNT 695,
       15404),
     (SMALL_STATE tcl_LARGE_STATE_COUNT 696, 15408), (SMALL_STATE tcl_LARGE_STATE_COUNT 697,
       15412),
     (SMALL_STATE tcl_LARGE_STATE_COUNT 698, 15416), (SMALL_STATE tcl_LARGE_STATE_COUNT 699,
       15420),
     (SMALL_STATE tcl_LARGE_STATE_COUNT 700, 15424), (SMALL_STATE tcl_LARGE_STATE_COUNT 701,
       15428),
     (SMALL_STATE tcl_LARGE_STATE_COUNT 702, 15432), (SMALL_STATE tcl_LARGE_STATE_COUNT 703,
       15436),
     (SMALL_STATE tcl_LARGE_STATE_COUNT 704, 15440), (SMALL_STATE tcl_LARGE_STATE_COUNT 705,
       15444),
     (SMALL_STATE tcl_LARGE_STATE_COUNT 706, 15448), (SMALL_STATE tcl_LARGE_STATE_COUNT 707,
       15452),
     (SMALL_STATE tcl_LARGE_STATE_COUNT 708, 15456), (SMALL_STATE tcl_LARGE_STATE_COUNT 709,
       15460),
     (SMALL_STATE tcl_LARGE_STATE_COUNT 710, 15464), (SMALL_STATE tcl_LARGE_STATE_COUNT 711,
       15468),
     (SMALL_STATE tcl_LARGE_STATE_COUNT 712, 15472), (SMALL_STATE tcl_LARGE_STATE_COUNT 713,
       15476),
     (SMALL_STATE tcl_LARGE_STATE_COUNT 714, 15480), (SMALL_STATE tcl_LARGE_STATE_COUNT 715,
       15484),
     (SMALL_STATE tcl_LARGE_STATE_COUNT 716, 15488)]"

definition tcl_ts_small_parse_table_map :: "(nat \<times> nat) list" where
  "tcl_ts_small_parse_table_map = tcl_small_map_0 @ tcl_small_map_1 @ tcl_small_map_2 @
    tcl_small_map_3 @ tcl_small_map_4 @ tcl_small_map_5 @ tcl_small_map_6 @ tcl_small_map_7 @
    tcl_small_map_8 @ tcl_small_map_9 @ tcl_small_map_10 @ tcl_small_map_11"

section \<open>Parse actions\<close>

definition tcl_parse_actions_0 :: "(nat \<times> TSParseActionEntry list) list" where
  "tcl_parse_actions_0 =
    [(0, [Entry 0 False]),
     (1, [Entry 1 False, RECOVER]),
     (3, [Entry 1 True, REDUCE tcl_sym_source_file 0 0 0]),
     (5, [Entry 1 False, SHIFT 108]),
     (7, [Entry 1 False, SHIFT 5]),
     (9, [Entry 1 False, SHIFT 602]),
     (11, [Entry 1 False, SHIFT 242]),
     (13, [Entry 1 False, SHIFT 163]),
     (15, [Entry 1 False, SHIFT 172]),
     (17, [Entry 1 False, SHIFT 555]),
     (19, [Entry 1 False, SHIFT 138]),
     (21, [Entry 1 False, SHIFT 109]),
     (23, [Entry 1 False, SHIFT 187]),
     (25, [Entry 1 False, SHIFT 220]),
     (27, [Entry 1 False, SHIFT 493]),
     (29, [Entry 1 False, SHIFT 15]),
     (31, [Entry 1 False, SHIFT 532]),
     (33, [Entry 1 False, SHIFT 193]),
     (35, [Entry 1 False, SHIFT 156]),
     (37, [Entry 1 False, SHIFT 167]),
     (39, [Entry 1 False, SHIFT 176]),
     (41, [Entry 1 False, SHIFT 180]),
     (43, [Entry 1 False, SHIFT 370]),
     (45, [Entry 1 False, SHIFT 198]),
     (47, [Entry 1 False, SHIFT 22]),
     (49, [Entry 1 True, REDUCE tcl_aux_sym_source_file_repeat1 2 0 0]),
     (51, [Entry 2 False, REDUCE tcl_aux_sym_source_file_repeat1 2 0 0, SHIFT_REPEAT 108]),
     (54, [Entry 2 False, REDUCE tcl_aux_sym_source_file_repeat1 2 0 0, SHIFT_REPEAT 2]),
     (57, [Entry 2 False, REDUCE tcl_aux_sym_source_file_repeat1 2 0 0, SHIFT_REPEAT 602]),
     (60, [Entry 2 False, REDUCE tcl_aux_sym_source_file_repeat1 2 0 0, SHIFT_REPEAT 242]),
     (63, [Entry 2 False, REDUCE tcl_aux_sym_source_file_repeat1 2 0 0, SHIFT_REPEAT 163]),
     (66, [Entry 2 False, REDUCE tcl_aux_sym_source_file_repeat1 2 0 0, SHIFT_REPEAT 172]),
     (69, [Entry 2 False, REDUCE tcl_aux_sym_source_file_repeat1 2 0 0, SHIFT_REPEAT 555]),
     (72, [Entry 2 False, REDUCE tcl_aux_sym_source_file_repeat1 2 0 0, SHIFT_REPEAT 138]),
     (75, [Entry 2 False, REDUCE tcl_aux_sym_source_file_repeat1 2 0 0, SHIFT_REPEAT 109]),
     (78, [Entry 2 False, REDUCE tcl_aux_sym_source_file_repeat1 2 0 0, SHIFT_REPEAT 187]),
     (81, [Entry 2 False, REDUCE tcl_aux_sym_source_file_repeat1 2 0 0, SHIFT_REPEAT 220]),
     (84, [Entry 2 False, REDUCE tcl_aux_sym_source_file_repeat1 2 0 0, SHIFT_REPEAT 493]),
     (87, [Entry 2 False, REDUCE tcl_aux_sym_source_file_repeat1 2 0 0, SHIFT_REPEAT 15]),
     (90, [Entry 2 False, REDUCE tcl_aux_sym_source_file_repeat1 2 0 0, SHIFT_REPEAT 532]),
     (93, [Entry 2 False, REDUCE tcl_aux_sym_source_file_repeat1 2 0 0, SHIFT_REPEAT 193]),
     (96, [Entry 2 False, REDUCE tcl_aux_sym_source_file_repeat1 2 0 0, SHIFT_REPEAT 156]),
     (99, [Entry 2 False, REDUCE tcl_aux_sym_source_file_repeat1 2 0 0, SHIFT_REPEAT 167]),
     (102, [Entry 2 False, REDUCE tcl_aux_sym_source_file_repeat1 2 0 0, SHIFT_REPEAT 176]),
     (105, [Entry 2 False, REDUCE tcl_aux_sym_source_file_repeat1 2 0 0, SHIFT_REPEAT 180]),
     (108, [Entry 2 False, REDUCE tcl_aux_sym_source_file_repeat1 2 0 0, SHIFT_REPEAT 370]),
     (111, [Entry 2 False, REDUCE tcl_aux_sym_source_file_repeat1 2 0 0, SHIFT_REPEAT 198]),
     (114, [Entry 2 False, REDUCE tcl_aux_sym_source_file_repeat1 2 0 0, SHIFT_REPEAT 22]),
     (117, [Entry 1 False, SHIFT 70]),
     (119, [Entry 1 False, SHIFT 565]),
     (121, [Entry 1 False, SHIFT 296]),
     (123, [Entry 1 False, SHIFT 291]),
     (125, [Entry 1 True, REDUCE tcl_sym_source_file 1 0 0]),
     (127, [Entry 1 False, SHIFT 2]),
     (129, [Entry 1 False, SHIFT 423]),
     (131, [Entry 1 False, SHIFT 425]),
     (133, [Entry 1 False, SHIFT 525]),
     (135, [Entry 1 False, SHIFT 522]),
     (137, [Entry 1 False, SHIFT 340]),
     (139, [Entry 1 False, SHIFT 473]),
     (141, [Entry 1 False, SHIFT 379]),
     (143, [Entry 1 False, SHIFT 496]),
     (145, [Entry 1 False, SHIFT 461]),
     (147, [Entry 1 False, SHIFT 286]),
     (149, [Entry 1 True, SHIFT 198]),
     (151, [Entry 1 False, SHIFT 468]),
     (153, [Entry 1 False, SHIFT 415]),
     (155, [Entry 1 False, SHIFT 480]),
     (157, [Entry 1 False, SHIFT 526]),
     (159, [Entry 1 False, SHIFT 492]),
     (161, [Entry 1 False, SHIFT 513]),
     (163, [Entry 1 False, SHIFT 485]),
     (165, [Entry 1 False, SHIFT 349]),
     (167, [Entry 1 False, SHIFT 162]),
     (169, [Entry 1 False, SHIFT 639]),
     (171, [Entry 1 False, SHIFT 225]),
     (173, [Entry 1 False, SHIFT 184]),
     (175, [Entry 1 False, SHIFT 199]),
     (177, [Entry 1 False, SHIFT 593]),
     (179, [Entry 1 False, SHIFT 226]),
     (181, [Entry 1 False, SHIFT 115]),
     (183, [Entry 1 False, SHIFT 147]),
     (185, [Entry 1 False, SHIFT 228]),
     (187, [Entry 1 False, SHIFT 465]),
     (189, [Entry 1 False, SHIFT 19]),
     (191, [Entry 1 False, SHIFT 520]),
     (193, [Entry 1 False, SHIFT 195]),
     (195, [Entry 1 False, SHIFT 185]),
     (197, [Entry 1 False, SHIFT 149]),
     (199, [Entry 1 False, SHIFT 186]),
     (201, [Entry 1 False, SHIFT 150]),
     (203, [Entry 1 False, SHIFT 376]),
     (205, [Entry 1 True, SHIFT 304]),
     (207, [Entry 1 False, SHIFT 23]),
     (209, [Entry 1 False, SHIFT 645]),
     (211, [Entry 1 False, SHIFT 700]),
     (213, [Entry 1 False, SHIFT 683]),
     (215, [Entry 1 False, SHIFT 680]),
     (217, [Entry 1 False, SHIFT 663]),
     (219, [Entry 1 False, SHIFT 619])]"

definition tcl_parse_actions_1 :: "(nat \<times> TSParseActionEntry list) list" where
  "tcl_parse_actions_1 =
    [(221, [Entry 1 False, SHIFT 615]),
     (223, [Entry 1 False, SHIFT 623]),
     (225, [Entry 1 False, SHIFT 603]),
     (227, [Entry 1 True, SHIFT 650]),
     (229, [Entry 1 True, REDUCE tcl_sym__id_immediate 3 0 0]),
     (231, [Entry 1 False, REDUCE tcl_sym__id_immediate 3 0 0]),
     (233, [Entry 2 True, REDUCE tcl_aux_sym__id_immediate_repeat1 2 0 0, SHIFT_REPEAT 650]),
     (236, [Entry 1 True, REDUCE tcl_aux_sym__id_immediate_repeat1 2 0 0]),
     (238, [Entry 1 False, REDUCE tcl_aux_sym__id_immediate_repeat1 2 0 0]),
     (240, [Entry 1 True, REDUCE tcl_sym__id_immediate 1 0 0]),
     (242, [Entry 1 False, REDUCE tcl_sym__id_immediate 1 0 0]),
     (244, [Entry 1 True, REDUCE tcl_sym__id_immediate 2 0 0]),
     (246, [Entry 1 False, REDUCE tcl_sym__id_immediate 2 0 0]),
     (248, [Entry 1 True, SHIFT 280]),
     (250, [Entry 1 True, REDUCE tcl_sym_variable_substitution 2 0 0]),
     (252, [Entry 1 False, REDUCE tcl_sym_variable_substitution 2 0 0]),
     (254, [Entry 1 True, REDUCE tcl_sym_variable_substitution 4 0 0]),
     (256, [Entry 1 False, REDUCE tcl_sym_variable_substitution 4 0 0]),
     (258, [Entry 1 True, REDUCE tcl_sym_array_index 3 0 0]),
     (260, [Entry 1 False, REDUCE tcl_sym_array_index 3 0 0]),
     (262, [Entry 1 True, REDUCE tcl_sym__expr_atom_no_brace 4 0 0]),
     (264, [Entry 1 False, REDUCE tcl_sym__expr_atom_no_brace 4 0 0]),
     (266, [Entry 1 True, REDUCE tcl_sym_variable_substitution 5 0 0]),
     (268, [Entry 1 False, REDUCE tcl_sym_variable_substitution 5 0 0]),
     (270, [Entry 1 True, REDUCE tcl_sym_quoted_word 2 0 0]),
     (272, [Entry 1 False, REDUCE tcl_sym_quoted_word 2 0 0]),
     (274, [Entry 1 True, REDUCE tcl_sym_quoted_word 3 0 0]),
     (276, [Entry 1 False, REDUCE tcl_sym_quoted_word 3 0 0]),
     (278, [Entry 1 True, REDUCE tcl_sym_variable_substitution 3 0 0]),
     (280, [Entry 1 False, REDUCE tcl_sym_variable_substitution 3 0 0]),
     (282, [Entry 1 True, REDUCE tcl_sym_command_substitution 3 0 0]),
     (284, [Entry 1 False, REDUCE tcl_sym_command_substitution 3 0 0]),
     (286, [Entry 1 True, REDUCE tcl_sym_ternary_expr 5 0 0]),
     (288, [Entry 1 True, SHIFT 76]),
     (290, [Entry 1 True, SHIFT 79]),
     (292, [Entry 1 True, SHIFT 81]),
     (294, [Entry 1 False, SHIFT 81]),
     (296, [Entry 1 True, SHIFT 80]),
     (298, [Entry 1 False, SHIFT 82]),
     (300, [Entry 1 True, SHIFT 82]),
     (302, [Entry 1 True, SHIFT 83]),
     (304, [Entry 1 True, SHIFT 84]),
     (306, [Entry 1 True, SHIFT 85]),
     (308, [Entry 1 False, SHIFT 86]),
     (310, [Entry 1 True, SHIFT 87]),
     (312, [Entry 1 False, SHIFT 88]),
     (314, [Entry 1 True, SHIFT 89]),
     (316, [Entry 1 True, SHIFT 90]),
     (318, [Entry 1 True, REDUCE tcl_sym_binop_expr 3 0 0]),
     (320, [Entry 1 False, REDUCE tcl_sym_binop_expr 3 0 0]),
     (322, [Entry 1 True, REDUCE tcl_sym_braced_word_simple 2 0 0]),
     (324, [Entry 1 False, REDUCE tcl_sym_braced_word_simple 2 0 0]),
     (326, [Entry 1 True, REDUCE tcl_sym_braced_word_simple 3 0 0]),
     (328, [Entry 1 False, REDUCE tcl_sym_braced_word_simple 3 0 0]),
     (330, [Entry 1 True, REDUCE tcl_sym_unary_expr 2 0 0]),
     (332, [Entry 1 False, REDUCE tcl_sym_unary_expr 2 0 0]),
     (334, [Entry 1 True, REDUCE tcl_sym__expr 3 0 0]),
     (336, [Entry 1 False, REDUCE tcl_sym__expr 3 0 0]),
     (338, [Entry 1 True, SHIFT 91]),
     (340, [Entry 1 True, SHIFT 95]),
     (342, [Entry 1 True, SHIFT 61]),
     (344, [Entry 1 True, SHIFT 39]),
     (346, [Entry 1 True, SHIFT 564]),
     (348, [Entry 1 True, SHIFT 538]),
     (350, [Entry 1 True, SHIFT 426]),
     (352, [Entry 1 True, SHIFT 428]),
     (354, [Entry 1 False, REDUCE tcl_aux_sym_braced_word_repeat1 2 0 0]),
     (356, [Entry 2 False, REDUCE tcl_aux_sym_braced_word_repeat1 2 0 0, SHIFT_REPEAT 70]),
     (359, [Entry 1 True, SHIFT 636]),
     (361, [Entry 1 False, REDUCE tcl_aux_sym_source_file_repeat1 2 0 0]),
     (363, [Entry 1 False, SHIFT 715]),
     (365, [Entry 1 False, SHIFT 501]),
     (367, [Entry 1 False, SHIFT 125]),
     (369, [Entry 1 False, SHIFT 67]),
     (371, [Entry 1 False, SHIFT 74]),
     (373, [Entry 1 False, SHIFT 75]),
     (375, [Entry 1 False, SHIFT 356]),
     (377, [Entry 1 True, SHIFT 67]),
     (379, [Entry 1 False, SHIFT 20]),
     (381, [Entry 1 False, SHIFT 64]),
     (383, [Entry 1 True, SHIFT 64]),
     (385, [Entry 1 False, SHIFT 60]),
     (387, [Entry 1 True, SHIFT 60]),
     (389, [Entry 1 False, SHIFT 62]),
     (391, [Entry 1 True, SHIFT 62]),
     (393, [Entry 1 False, SHIFT 69]),
     (395, [Entry 1 True, SHIFT 69]),
     (397, [Entry 1 False, SHIFT 68]),
     (399, [Entry 1 True, SHIFT 68]),
     (401, [Entry 1 False, SHIFT 46]),
     (403, [Entry 1 True, SHIFT 46]),
     (405, [Entry 1 False, SHIFT 48]),
     (407, [Entry 1 True, SHIFT 48]),
     (409, [Entry 1 False, SHIFT 47]),
     (411, [Entry 1 True, SHIFT 47]),
     (413, [Entry 1 False, SHIFT 49]),
     (415, [Entry 1 True, SHIFT 49]),
     (417, [Entry 1 False, SHIFT 50]),
     (419, [Entry 1 True, SHIFT 50]),
     (421, [Entry 1 False, SHIFT 51])]"

definition tcl_parse_actions_2 :: "(nat \<times> TSParseActionEntry list) list" where
  "tcl_parse_actions_2 =
    [(423, [Entry 1 True, SHIFT 51]),
     (425, [Entry 1 False, SHIFT 52]),
     (427, [Entry 1 True, SHIFT 52]),
     (429, [Entry 1 False, SHIFT 53]),
     (431, [Entry 1 True, SHIFT 53]),
     (433, [Entry 1 False, SHIFT 54]),
     (435, [Entry 1 True, SHIFT 54]),
     (437, [Entry 1 False, SHIFT 55]),
     (439, [Entry 1 True, SHIFT 55]),
     (441, [Entry 1 False, SHIFT 56]),
     (443, [Entry 1 True, SHIFT 56]),
     (445, [Entry 1 False, SHIFT 57]),
     (447, [Entry 1 True, SHIFT 57]),
     (449, [Entry 1 False, SHIFT 63]),
     (451, [Entry 1 True, SHIFT 63]),
     (453, [Entry 1 False, SHIFT 66]),
     (455, [Entry 1 True, SHIFT 66]),
     (457, [Entry 1 False, SHIFT 71]),
     (459, [Entry 1 True, SHIFT 71]),
     (461, [Entry 1 False, SHIFT 65]),
     (463, [Entry 1 True, SHIFT 65]),
     (465, [Entry 1 False, SHIFT 45]),
     (467, [Entry 1 True, SHIFT 45]),
     (469, [Entry 1 False, REDUCE tcl_sym_command 2 0 2]),
     (471, [Entry 1 False, SHIFT 251]),
     (473, [Entry 1 False, REDUCE tcl_sym_command 1 0 1]),
     (475, [Entry 1 False, REDUCE tcl_sym_word_list 1 0 0]),
     (477, [Entry 2 False, REDUCE tcl_aux_sym_word_list_repeat1 2 0 0, SHIFT_REPEAT 108]),
     (480, [Entry 1 False, REDUCE tcl_aux_sym_word_list_repeat1 2 0 0]),
     (482, [Entry 2 False, REDUCE tcl_aux_sym_word_list_repeat1 2 0 0, SHIFT_REPEAT 251]),
     (485, [Entry 2 False, REDUCE tcl_aux_sym_word_list_repeat1 2 0 0, SHIFT_REPEAT 493]),
     (488, [Entry 2 False, REDUCE tcl_aux_sym_word_list_repeat1 2 0 0, SHIFT_REPEAT 15]),
     (491, [Entry 2 False, REDUCE tcl_aux_sym_word_list_repeat1 2 0 0, SHIFT_REPEAT 370]),
     (494, [Entry 2 False, REDUCE tcl_aux_sym_word_list_repeat1 2 0 0, SHIFT_REPEAT 198]),
     (497, [Entry 2 False, REDUCE tcl_aux_sym_word_list_repeat1 2 0 0, SHIFT_REPEAT 22]),
     (500, [Entry 1 False, SHIFT 498]),
     (502, [Entry 1 False, REDUCE tcl_sym_set 2 0 0]),
     (504, [Entry 1 True, SHIFT 266]),
     (506, [Entry 1 False, SHIFT 489]),
     (508, [Entry 1 False, SHIFT 134]),
     (510, [Entry 1 False, SHIFT 345]),
     (512, [Entry 1 False, SHIFT 25]),
     (514, [Entry 1 False, SHIFT 674]),
     (516, [Entry 1 False, SHIFT 231]),
     (518, [Entry 2 False, REDUCE tcl_aux_sym__id_immediate_repeat1 2 0 0, SHIFT_REPEAT 674]),
     (521, [Entry 1 False, REDUCE tcl_sym__concat_word 1 0 0]),
     (523, [Entry 1 True, SHIFT 206]),
     (525, [Entry 1 True, SHIFT 389]),
     (527, [Entry 1 False, SHIFT 514]),
     (529, [Entry 1 True, SHIFT 278]),
     (531, [Entry 1 False, SHIFT 503]),
     (533, [Entry 1 False, SHIFT 136]),
     (535, [Entry 1 False, SHIFT 352]),
     (537, [Entry 1 True, SHIFT 514]),
     (539, [Entry 1 False, SHIFT 27]),
     (541, [Entry 2 False, REDUCE tcl_aux_sym_word_list_repeat1 2 0 0, SHIFT_REPEAT 162]),
     (544, [Entry 2 False, REDUCE tcl_aux_sym_word_list_repeat1 2 0 0, SHIFT_REPEAT 231]),
     (547, [Entry 2 False, REDUCE tcl_aux_sym_word_list_repeat1 2 0 0, SHIFT_REPEAT 465]),
     (550, [Entry 2 False, REDUCE tcl_aux_sym_word_list_repeat1 2 0 0, SHIFT_REPEAT 19]),
     (553, [Entry 2 False, REDUCE tcl_aux_sym_word_list_repeat1 2 0 0, SHIFT_REPEAT 376]),
     (556, [Entry 2 True, REDUCE tcl_aux_sym_word_list_repeat1 2 0 0, SHIFT_REPEAT 304]),
     (559, [Entry 2 False, REDUCE tcl_aux_sym_word_list_repeat1 2 0 0, SHIFT_REPEAT 23]),
     (562, [Entry 1 False, REDUCE tcl_sym_set 5 0 0]),
     (564, [Entry 1 False, REDUCE tcl_sym_set 3 0 0]),
     (566, [Entry 1 False, SHIFT 638]),
     (568, [Entry 2 False, REDUCE tcl_aux_sym__id_immediate_repeat1 2 0 0, SHIFT_REPEAT 638]),
     (571, [Entry 2 False, REDUCE tcl_aux_sym_regexp_repeat1 2 0 0, SHIFT_REPEAT 108]),
     (574, [Entry 1 False, REDUCE tcl_aux_sym_regexp_repeat1 2 0 0]),
     (576, [Entry 2 False, REDUCE tcl_aux_sym_regexp_repeat1 2 0 0, SHIFT_REPEAT 493]),
     (579, [Entry 2 False, REDUCE tcl_aux_sym_regexp_repeat1 2 0 0, SHIFT_REPEAT 370]),
     (582, [Entry 2 False, REDUCE tcl_aux_sym_regexp_repeat1 2 0 0, SHIFT_REPEAT 198]),
     (585, [Entry 2 False, REDUCE tcl_aux_sym_regexp_repeat1 2 0 0, SHIFT_REPEAT 22]),
     (588, [Entry 1 False, REDUCE tcl_sym_global 2 0 0]),
     (590, [Entry 1 False, REDUCE tcl_sym_id 3 0 0]),
     (592, [Entry 1 False, SHIFT 676]),
     (594, [Entry 1 True, REDUCE tcl_sym_id 3 0 0]),
     (596, [Entry 1 False, REDUCE tcl_sym_id 2 0 0]),
     (598, [Entry 1 True, REDUCE tcl_sym_id 2 0 0]),
     (600, [Entry 1 False, SHIFT 339]),
     (602, [Entry 1 False, SHIFT 500]),
     (604, [Entry 1 False, SHIFT 143]),
     (606, [Entry 1 False, SHIFT 58]),
     (608, [Entry 1 False, SHIFT 354]),
     (610, [Entry 1 True, SHIFT 339]),
     (612, [Entry 1 False, SHIFT 29]),
     (614, [Entry 1 False, SHIFT 59]),
     (616, [Entry 1 False, REDUCE tcl_aux_sym__concat_word_repeat1 2 0 0]),
     (618, [Entry 1 True, REDUCE tcl_aux_sym__concat_word_repeat1 2 0 0]),
     (620, [Entry 2 False, REDUCE tcl_aux_sym_braced_word_simple_repeat1 2 0 0, SHIFT_REPEAT
       339]),
     (623, [Entry 2 False, REDUCE tcl_aux_sym_braced_word_simple_repeat1 2 0 0, SHIFT_REPEAT
       500]),
     (626, [Entry 2 False, REDUCE tcl_aux_sym_braced_word_simple_repeat1 2 0 0, SHIFT_REPEAT
       143]),
     (629, [Entry 1 False, REDUCE tcl_aux_sym_braced_word_simple_repeat1 2 0 0]),
     (631, [Entry 2 False, REDUCE tcl_aux_sym_braced_word_simple_repeat1 2 0 0, SHIFT_REPEAT
       354]),
     (634, [Entry 2 True, REDUCE tcl_aux_sym_braced_word_simple_repeat1 2 0 0, SHIFT_REPEAT 339]),
     (637, [Entry 2 False, REDUCE tcl_aux_sym_braced_word_simple_repeat1 2 0 0, SHIFT_REPEAT 29]),
     (640, [Entry 1 False, REDUCE tcl_sym_regexp 4 0 0]),
     (642, [Entry 1 False, SHIFT 391]),
     (644, [Entry 1 False, SHIFT 384]),
     (646, [Entry 1 False, REDUCE tcl_sym_id 1 0 0]),
     (648, [Entry 1 True, REDUCE tcl_sym_id 1 0 0])]"

definition tcl_parse_actions_3 :: "(nat \<times> TSParseActionEntry list) list" where
  "tcl_parse_actions_3 =
    [(650, [Entry 1 False, SHIFT 534]),
     (652, [Entry 1 False, SHIFT 516]),
     (654, [Entry 1 False, SHIFT 584]),
     (656, [Entry 1 False, SHIFT 591]),
     (658, [Entry 1 False, REDUCE tcl_sym_global 1 0 0]),
     (660, [Entry 1 False, SHIFT 387]),
     (662, [Entry 1 False, REDUCE tcl_sym_regexp 3 0 0]),
     (664, [Entry 1 False, SHIFT 361]),
     (666, [Entry 2 False, REDUCE tcl_aux_sym__id_immediate_repeat1 2 0 0, SHIFT_REPEAT 676]),
     (669, [Entry 1 False, SHIFT 491]),
     (671, [Entry 1 False, SHIFT 247]),
     (673, [Entry 1 False, SHIFT 17]),
     (675, [Entry 1 True, SHIFT 595]),
     (677, [Entry 1 False, SHIFT 337]),
     (679, [Entry 1 False, SHIFT 233]),
     (681, [Entry 1 False, SHIFT 502]),
     (683, [Entry 1 False, SHIFT 18]),
     (685, [Entry 1 False, SHIFT 358]),
     (687, [Entry 1 True, SHIFT 398]),
     (689, [Entry 1 False, SHIFT 21]),
     (691, [Entry 1 False, SHIFT 227]),
     (693, [Entry 1 False, REDUCE tcl_sym_catch 3 0 0]),
     (695, [Entry 1 False, SHIFT 312]),
     (697, [Entry 1 False, SHIFT 234]),
     (699, [Entry 1 False, SHIFT 240]),
     (701, [Entry 2 True, REDUCE tcl_aux_sym__id_immediate_repeat1 2 0 0, SHIFT_REPEAT 616]),
     (704, [Entry 1 False, SHIFT 238]),
     (706, [Entry 1 False, SHIFT 241]),
     (708, [Entry 1 False, SHIFT 282]),
     (710, [Entry 1 False, SHIFT 223]),
     (712, [Entry 1 False, SHIFT 16]),
     (714, [Entry 1 True, SHIFT 312]),
     (716, [Entry 1 False, SHIFT 665]),
     (718, [Entry 1 True, SHIFT 478]),
     (720, [Entry 1 True, SHIFT 78]),
     (722, [Entry 1 False, SHIFT 434]),
     (724, [Entry 1 True, SHIFT 396]),
     (726, [Entry 1 True, SHIFT 26]),
     (728, [Entry 1 False, SHIFT 243]),
     (730, [Entry 1 False, SHIFT 244]),
     (732, [Entry 2 True, REDUCE tcl_aux_sym__concat_word_repeat1 2 0 0, SHIFT_REPEAT 389]),
     (735, [Entry 1 False, SHIFT 245]),
     (737, [Entry 1 False, REDUCE tcl_sym__concat_word 3 0 0]),
     (739, [Entry 1 True, SHIFT 270]),
     (741, [Entry 1 True, REDUCE tcl_sym__concat_word 1 0 0]),
     (743, [Entry 1 True, SHIFT 394]),
     (745, [Entry 1 False, SHIFT 249]),
     (747, [Entry 1 False, SHIFT 250]),
     (749, [Entry 1 True, SHIFT 616]),
     (751, [Entry 1 False, SHIFT 210]),
     (753, [Entry 1 False, SHIFT 255]),
     (755, [Entry 1 False, SHIFT 229]),
     (757, [Entry 1 False, SHIFT 257]),
     (759, [Entry 1 False, SHIFT 704]),
     (761, [Entry 1 True, SHIFT 483]),
     (763, [Entry 1 True, SHIFT 92]),
     (765, [Entry 1 False, SHIFT 540]),
     (767, [Entry 1 True, SHIFT 390]),
     (769, [Entry 1 True, SHIFT 24]),
     (771, [Entry 1 False, SHIFT 221]),
     (773, [Entry 1 False, SHIFT 212]),
     (775, [Entry 1 False, SHIFT 219]),
     (777, [Entry 1 False, SHIFT 218]),
     (779, [Entry 1 False, REDUCE tcl_sym_catch 2 0 0]),
     (781, [Entry 1 False, SHIFT 224]),
     (783, [Entry 1 False, SHIFT 239]),
     (785, [Entry 1 False, SHIFT 646]),
     (787, [Entry 1 False, REDUCE tcl_sym__concat_word 2 0 0]),
     (789, [Entry 1 False, SHIFT 207]),
     (791, [Entry 1 False, SHIFT 281]),
     (793, [Entry 1 False, SHIFT 455]),
     (795, [Entry 1 False, SHIFT 209]),
     (797, [Entry 1 False, SHIFT 497]),
     (799, [Entry 1 True, SHIFT 521]),
     (801, [Entry 1 False, SHIFT 203]),
     (803, [Entry 2 False, REDUCE tcl_aux_sym__id_immediate_repeat1 2 0 0, SHIFT_REPEAT 646]),
     (806, [Entry 1 True, SHIFT 501]),
     (808, [Entry 1 True, SHIFT 93]),
     (810, [Entry 1 False, SHIFT 671]),
     (812, [Entry 1 True, SHIFT 356]),
     (814, [Entry 1 True, SHIFT 20]),
     (816, [Entry 1 False, SHIFT 329]),
     (818, [Entry 1 False, SHIFT 130]),
     (820, [Entry 1 True, SHIFT 329]),
     (822, [Entry 2 False, REDUCE tcl_aux_sym__id_immediate_repeat1 2 0 0, SHIFT_REPEAT 687]),
     (825, [Entry 1 True, SHIFT 652]),
     (827, [Entry 2 False, REDUCE tcl_aux_sym__id_immediate_repeat1 2 0 0, SHIFT_REPEAT 640]),
     (830, [Entry 2 True, REDUCE tcl_aux_sym__id_immediate_repeat1 2 0 0, SHIFT_REPEAT 652]),
     (833, [Entry 1 False, SHIFT 421]),
     (835, [Entry 1 True, SHIFT 421]),
     (837, [Entry 1 True, SHIFT 263]),
     (839, [Entry 1 True, SHIFT 342]),
     (841, [Entry 1 False, SHIFT 640]),
     (843, [Entry 2 False, REDUCE tcl_aux_sym_regexp_repeat1 2 0 0, SHIFT_REPEAT 162]),
     (846, [Entry 2 False, REDUCE tcl_aux_sym_regexp_repeat1 2 0 0, SHIFT_REPEAT 465]),
     (849, [Entry 2 False, REDUCE tcl_aux_sym_regexp_repeat1 2 0 0, SHIFT_REPEAT 376]),
     (852, [Entry 2 True, REDUCE tcl_aux_sym_regexp_repeat1 2 0 0, SHIFT_REPEAT 304]),
     (855, [Entry 2 False, REDUCE tcl_aux_sym_regexp_repeat1 2 0 0, SHIFT_REPEAT 23]),
     (858, [Entry 1 False, REDUCE tcl_aux_sym__concat_word_repeat1 3 0 0]),
     (860, [Entry 1 True, REDUCE tcl_aux_sym__concat_word_repeat1 3 0 0])]"

definition tcl_parse_actions_4 :: "(nat \<times> TSParseActionEntry list) list" where
  "tcl_parse_actions_4 =
    [(862, [Entry 1 False, SHIFT 687]),
     (864, [Entry 1 False, REDUCE tcl_sym_braced_word 2 0 0]),
     (866, [Entry 1 False, SHIFT 363]),
     (868, [Entry 1 True, SHIFT 363]),
     (870, [Entry 1 True, REDUCE tcl_sym__concat_word 2 0 0]),
     (872, [Entry 1 False, REDUCE tcl_sym_braced_word 4 0 0]),
     (874, [Entry 1 False, REDUCE tcl_sym_braced_word 3 0 0]),
     (876, [Entry 1 False, SHIFT 386]),
     (878, [Entry 1 True, SHIFT 386]),
     (880, [Entry 1 False, SHIFT 519]),
     (882, [Entry 1 True, SHIFT 519]),
     (884, [Entry 1 False, REDUCE tcl_sym_braced_word 5 0 0]),
     (886, [Entry 1 False, SHIFT 566]),
     (888, [Entry 1 True, SHIFT 566]),
     (890, [Entry 2 True, REDUCE tcl_aux_sym__concat_word_repeat1 2 0 0, SHIFT_REPEAT 394]),
     (893, [Entry 1 True, REDUCE tcl_sym__concat_word 3 0 0]),
     (895, [Entry 1 True, SHIFT 279]),
     (897, [Entry 1 False, REDUCE tcl_sym__word_simple 2 0 0]),
     (899, [Entry 1 True, REDUCE tcl_sym__word_simple 2 0 0]),
     (901, [Entry 1 True, SHIFT 301]),
     (903, [Entry 1 True, SHIFT 632]),
     (905, [Entry 2 True, REDUCE tcl_aux_sym__concat_word_repeat1 2 0 0, SHIFT_REPEAT 342]),
     (908, [Entry 2 True, REDUCE tcl_aux_sym__id_immediate_repeat1 2 0 0, SHIFT_REPEAT 632]),
     (911, [Entry 1 False, REDUCE tcl_aux_sym__word_simple_repeat1 2 0 0]),
     (913, [Entry 1 True, REDUCE tcl_aux_sym__word_simple_repeat1 2 0 0]),
     (915, [Entry 2 True, REDUCE tcl_aux_sym__word_simple_repeat1 2 0 0, SHIFT_REPEAT 301]),
     (918, [Entry 2 True, REDUCE tcl_aux_sym__word_simple_repeat1 2 0 0, SHIFT_REPEAT 287]),
     (921, [Entry 1 True, SHIFT 272]),
     (923, [Entry 1 False, REDUCE tcl_sym__word_simple 1 0 0]),
     (925, [Entry 1 True, REDUCE tcl_sym__word_simple 1 0 0]),
     (927, [Entry 1 True, SHIFT 287]),
     (929, [Entry 1 True, SHIFT 277]),
     (931, [Entry 1 True, SHIFT 348]),
     (933, [Entry 1 True, REDUCE tcl_sym_braced_word 5 0 0]),
     (935, [Entry 1 False, SHIFT 499]),
     (937, [Entry 1 False, SHIFT 313]),
     (939, [Entry 1 False, SHIFT 385]),
     (941, [Entry 1 False, SHIFT 28]),
     (943, [Entry 1 False, SHIFT 298]),
     (945, [Entry 1 True, SHIFT 368]),
     (947, [Entry 1 False, SHIFT 344]),
     (949, [Entry 1 False, SHIFT 347]),
     (951, [Entry 1 False, SHIFT 366]),
     (953, [Entry 1 False, SHIFT 377]),
     (955, [Entry 1 True, SHIFT 450]),
     (957, [Entry 1 True, REDUCE tcl_sym_braced_word 2 0 0]),
     (959, [Entry 1 False, SHIFT 463]),
     (961, [Entry 1 False, SHIFT 353]),
     (963, [Entry 1 False, SHIFT 476]),
     (965, [Entry 1 False, SHIFT 351]),
     (967, [Entry 1 False, SHIFT 355]),
     (969, [Entry 1 False, SHIFT 365]),
     (971, [Entry 1 False, SHIFT 41]),
     (973, [Entry 1 False, SHIFT 357]),
     (975, [Entry 1 False, SHIFT 42]),
     (977, [Entry 1 False, SHIFT 441]),
     (979, [Entry 1 False, SHIFT 359]),
     (981, [Entry 1 False, SHIFT 442]),
     (983, [Entry 1 True, REDUCE tcl_sym_if 4 0 9]),
     (985, [Entry 1 False, REDUCE tcl_sym_if 4 0 9]),
     (987, [Entry 1 True, REDUCE tcl_sym_if 4 0 12]),
     (989, [Entry 1 False, REDUCE tcl_sym_if 4 0 12]),
     (991, [Entry 1 True, REDUCE tcl_aux_sym_word_list_repeat1 2 0 0]),
     (993, [Entry 1 False, SHIFT 253]),
     (995, [Entry 1 False, SHIFT 395]),
     (997, [Entry 1 False, SHIFT 440]),
     (999, [Entry 1 True, SHIFT 529]),
     (1001, [Entry 1 True, REDUCE tcl_sym_braced_word 3 0 0]),
     (1003, [Entry 1 False, SHIFT 430]),
     (1005, [Entry 1 False, SHIFT 320]),
     (1007, [Entry 1 False, SHIFT 341]),
     (1009, [Entry 1 True, REDUCE tcl_sym_braced_word 4 0 0]),
     (1011, [Entry 1 True, REDUCE tcl_sym_if 5 0 17]),
     (1013, [Entry 1 False, REDUCE tcl_sym_if 5 0 17]),
     (1015, [Entry 1 True, REDUCE tcl_sym_if 3 0 6]),
     (1017, [Entry 1 False, REDUCE tcl_sym_if 3 0 6]),
     (1019, [Entry 2 False, REDUCE tcl_aux_sym_quoted_word_repeat1 2 0 0, SHIFT_REPEAT 499]),
     (1022, [Entry 1 False, REDUCE tcl_aux_sym_quoted_word_repeat1 2 0 0]),
     (1024, [Entry 2 False, REDUCE tcl_aux_sym_quoted_word_repeat1 2 0 0, SHIFT_REPEAT 385]),
     (1027, [Entry 2 False, REDUCE tcl_aux_sym_quoted_word_repeat1 2 0 0, SHIFT_REPEAT 28]),
     (1030, [Entry 1 False, SHIFT 127]),
     (1032, [Entry 1 True, SHIFT 235]),
     (1034, [Entry 1 False, SHIFT 581]),
     (1036, [Entry 1 False, SHIFT 393]),
     (1038, [Entry 1 False, SHIFT 588]),
     (1040, [Entry 1 False, SHIFT 204]),
     (1042, [Entry 1 True, SHIFT 310]),
     (1044, [Entry 1 False, SHIFT 232]),
     (1046, [Entry 1 False, SHIFT 427]),
     (1048, [Entry 1 False, SHIFT 373]),
     (1050, [Entry 1 False, SHIFT 624]),
     (1052, [Entry 1 True, SHIFT 654]),
     (1054, [Entry 1 True, SHIFT 17]),
     (1056, [Entry 1 True, SHIFT 568]),
     (1058, [Entry 2 True, REDUCE tcl_aux_sym__concat_word_repeat1 2 0 0, SHIFT_REPEAT 348]),
     (1061, [Entry 2 True, REDUCE tcl_aux_sym__id_immediate_repeat1 2 0 0, SHIFT_REPEAT 605]),
     (1064, [Entry 1 False, REDUCE tcl_sym_arguments 1 0 0]),
     (1066, [Entry 1 True, REDUCE tcl_sym_arguments 1 0 0]),
     (1068, [Entry 1 True, SHIFT 268]),
     (1070, [Entry 1 True, SHIFT 275])]"

definition tcl_parse_actions_5 :: "(nat \<times> TSParseActionEntry list) list" where
  "tcl_parse_actions_5 =
    [(1072, [Entry 2 False, REDUCE tcl_aux_sym__id_immediate_repeat1 2 0 0, SHIFT_REPEAT 624]),
     (1075, [Entry 1 True, REDUCE tcl_aux_sym_if_repeat1 2 0 19]),
     (1077, [Entry 1 False, REDUCE tcl_aux_sym_if_repeat1 2 0 19]),
     (1079, [Entry 2 False, REDUCE tcl_aux_sym_if_repeat1 2 0 19, SHIFT_REPEAT 156]),
     (1082, [Entry 1 True, SHIFT 294]),
     (1084, [Entry 1 False, REDUCE tcl_sym_arguments 3 0 0]),
     (1086, [Entry 1 True, REDUCE tcl_sym_arguments 3 0 0]),
     (1088, [Entry 2 True, REDUCE tcl_aux_sym__word_simple_repeat1 2 0 0, SHIFT_REPEAT 294]),
     (1091, [Entry 1 False, REDUCE tcl_sym_expr 3 0 0]),
     (1093, [Entry 1 True, REDUCE tcl_sym_expr 3 0 0]),
     (1095, [Entry 1 True, SHIFT 605]),
     (1097, [Entry 1 False, REDUCE tcl_sym_expr 1 0 0]),
     (1099, [Entry 1 True, REDUCE tcl_sym_expr 1 0 0]),
     (1101, [Entry 1 False, REDUCE tcl_sym_arguments 2 0 0]),
     (1103, [Entry 1 True, REDUCE tcl_sym_arguments 2 0 0]),
     (1105, [Entry 1 True, SHIFT 190]),
     (1107, [Entry 1 True, SHIFT 375]),
     (1109, [Entry 1 True, REDUCE tcl_sym_try 2 0 0]),
     (1111, [Entry 1 False, REDUCE tcl_sym_try 2 0 0]),
     (1113, [Entry 1 False, SHIFT 659]),
     (1115, [Entry 1 False, SHIFT 169]),
     (1117, [Entry 1 True, REDUCE tcl_sym_try 3 0 0]),
     (1119, [Entry 1 False, REDUCE tcl_sym_try 3 0 0]),
     (1121, [Entry 1 False, SHIFT 611]),
     (1123, [Entry 1 True, REDUCE tcl_sym_elseif 4 0 9]),
     (1125, [Entry 1 False, REDUCE tcl_sym_elseif 4 0 9]),
     (1127, [Entry 1 True, SHIFT 4]),
     (1129, [Entry 1 False, SHIFT 4]),
     (1131, [Entry 1 False, SHIFT 293]),
     (1133, [Entry 1 True, REDUCE tcl_aux_sym_if_repeat1 1 0 10]),
     (1135, [Entry 1 False, REDUCE tcl_aux_sym_if_repeat1 1 0 10]),
     (1137, [Entry 2 True, REDUCE tcl_aux_sym__word_simple_repeat1 2 0 0, SHIFT_REPEAT 295]),
     (1140, [Entry 1 True, SHIFT 649]),
     (1142, [Entry 1 True, SHIFT 139]),
     (1144, [Entry 1 True, SHIFT 660]),
     (1146, [Entry 2 True, REDUCE tcl_aux_sym_braced_word_repeat2 2 0 0, SHIFT_REPEAT 14]),
     (1149, [Entry 2 False, REDUCE tcl_aux_sym_braced_word_repeat2 2 0 0, SHIFT_REPEAT 14]),
     (1152, [Entry 1 False, REDUCE tcl_aux_sym_braced_word_repeat2 2 0 0]),
     (1154, [Entry 1 True, SHIFT 580]),
     (1156, [Entry 1 True, SHIFT 664]),
     (1158, [Entry 1 True, SHIFT 438]),
     (1160, [Entry 1 True, SHIFT 6]),
     (1162, [Entry 1 False, SHIFT 6]),
     (1164, [Entry 1 False, SHIFT 419]),
     (1166, [Entry 1 True, SHIFT 451]),
     (1168, [Entry 1 True, REDUCE tcl_sym_try 7 0 0]),
     (1170, [Entry 1 False, REDUCE tcl_sym_try 7 0 0]),
     (1172, [Entry 1 True, SHIFT 439]),
     (1174, [Entry 1 True, SHIFT 422]),
     (1176, [Entry 1 True, SHIFT 7]),
     (1178, [Entry 1 False, SHIFT 7]),
     (1180, [Entry 1 True, SHIFT 604]),
     (1182, [Entry 1 True, SHIFT 265]),
     (1184, [Entry 1 True, SHIFT 675]),
     (1186, [Entry 2 True, REDUCE tcl_aux_sym_if_repeat1 2 0 19, SHIFT_REPEAT 190]),
     (1189, [Entry 1 True, SHIFT 9]),
     (1191, [Entry 1 False, SHIFT 9]),
     (1193, [Entry 1 False, SHIFT 527]),
     (1195, [Entry 1 True, SHIFT 8]),
     (1197, [Entry 1 False, SHIFT 8]),
     (1199, [Entry 1 True, REDUCE tcl_sym_elseif 3 0 6]),
     (1201, [Entry 1 False, REDUCE tcl_sym_elseif 3 0 6]),
     (1203, [Entry 1 True, SHIFT 673]),
     (1205, [Entry 1 True, SHIFT 433]),
     (1207, [Entry 1 True, SHIFT 679]),
     (1209, [Entry 1 True, SHIFT 12]),
     (1211, [Entry 1 False, SHIFT 12]),
     (1213, [Entry 1 False, SHIFT 372]),
     (1215, [Entry 1 True, REDUCE tcl_sym_try 8 0 0]),
     (1217, [Entry 1 False, REDUCE tcl_sym_try 8 0 0]),
     (1219, [Entry 1 True, SHIFT 10]),
     (1221, [Entry 1 False, SHIFT 10]),
     (1223, [Entry 1 True, SHIFT 711]),
     (1225, [Entry 1 True, SHIFT 166]),
     (1227, [Entry 1 True, SHIFT 682]),
     (1229, [Entry 1 True, SHIFT 295]),
     (1231, [Entry 1 True, SHIFT 371]),
     (1233, [Entry 1 True, SHIFT 11]),
     (1235, [Entry 1 False, SHIFT 11]),
     (1237, [Entry 1 False, SHIFT 460]),
     (1239, [Entry 1 True, SHIFT 702]),
     (1241, [Entry 1 True, SHIFT 106]),
     (1243, [Entry 1 True, SHIFT 696]),
     (1245, [Entry 1 True, SHIFT 13]),
     (1247, [Entry 1 False, SHIFT 13]),
     (1249, [Entry 1 True, SHIFT 613]),
     (1251, [Entry 1 True, SHIFT 397]),
     (1253, [Entry 1 True, SHIFT 685]),
     (1255, [Entry 1 True, SHIFT 621]),
     (1257, [Entry 1 True, SHIFT 330]),
     (1259, [Entry 1 True, SHIFT 688]),
     (1261, [Entry 1 True, SHIFT 629]),
     (1263, [Entry 1 True, SHIFT 181]),
     (1265, [Entry 1 True, SHIFT 691]),
     (1267, [Entry 1 True, SHIFT 637]),
     (1269, [Entry 1 True, SHIFT 32]),
     (1271, [Entry 1 True, SHIFT 694]),
     (1273, [Entry 1 True, SHIFT 644]),
     (1275, [Entry 1 True, SHIFT 213]),
     (1277, [Entry 1 True, SHIFT 697])]"

definition tcl_parse_actions_6 :: "(nat \<times> TSParseActionEntry list) list" where
  "tcl_parse_actions_6 =
    [(1279, [Entry 1 True, SHIFT 274]),
     (1281, [Entry 1 True, SHIFT 3]),
     (1283, [Entry 1 False, SHIFT 3]),
     (1285, [Entry 2 True, REDUCE tcl_aux_sym_arguments_repeat1 2 0 0, SHIFT_REPEAT 580]),
     (1288, [Entry 2 True, REDUCE tcl_aux_sym_arguments_repeat1 2 0 0, SHIFT_REPEAT 664]),
     (1291, [Entry 1 True, REDUCE tcl_aux_sym_arguments_repeat1 2 0 0]),
     (1293, [Entry 1 True, REDUCE tcl_sym_try 6 0 0]),
     (1295, [Entry 1 False, REDUCE tcl_sym_try 6 0 0]),
     (1297, [Entry 1 True, SHIFT 297]),
     (1299, [Entry 2 True, REDUCE tcl_aux_sym__word_simple_repeat1 2 0 0, SHIFT_REPEAT 297]),
     (1302, [Entry 1 True, SHIFT 237]),
     (1304, [Entry 1 True, SHIFT 658]),
     (1306, [Entry 1 True, SHIFT 705]),
     (1308, [Entry 1 True, SHIFT 707]),
     (1310, [Entry 1 True, SHIFT 158]),
     (1312, [Entry 1 True, SHIFT 708]),
     (1314, [Entry 1 True, SHIFT 133]),
     (1316, [Entry 1 True, SHIFT 614]),
     (1318, [Entry 1 True, SHIFT 714]),
     (1320, [Entry 2 True, REDUCE tcl_aux_sym__concat_word_repeat1 2 0 0, SHIFT_REPEAT 375]),
     (1323, [Entry 1 True, REDUCE tcl_sym_while 4 0 0]),
     (1325, [Entry 1 False, REDUCE tcl_sym_while 4 0 0]),
     (1327, [Entry 1 True, REDUCE tcl_sym_namespace 2 0 0]),
     (1329, [Entry 1 False, REDUCE tcl_sym_namespace 2 0 0]),
     (1331, [Entry 1 True, REDUCE tcl_sym_if 6 0 22]),
     (1333, [Entry 1 False, REDUCE tcl_sym_if 6 0 22]),
     (1335, [Entry 1 True, REDUCE tcl_sym_procedure 6 0 21]),
     (1337, [Entry 1 False, REDUCE tcl_sym_procedure 6 0 21]),
     (1339, [Entry 1 True, REDUCE tcl_sym_set 4 0 0]),
     (1341, [Entry 1 False, REDUCE tcl_sym_set 4 0 0]),
     (1343, [Entry 1 True, REDUCE tcl_sym_foreach 4 0 0]),
     (1345, [Entry 1 False, REDUCE tcl_sym_foreach 4 0 0]),
     (1347, [Entry 1 True, REDUCE tcl_sym_procedure 4 0 8]),
     (1349, [Entry 1 False, REDUCE tcl_sym_procedure 4 0 8]),
     (1351, [Entry 1 True, REDUCE tcl_sym_finally 2 0 0]),
     (1353, [Entry 1 False, REDUCE tcl_sym_finally 2 0 0]),
     (1355, [Entry 1 True, REDUCE tcl_sym_catch 3 0 0]),
     (1357, [Entry 1 True, REDUCE tcl_sym_set 3 0 0]),
     (1359, [Entry 1 True, REDUCE tcl_sym_if 4 0 11]),
     (1361, [Entry 1 False, REDUCE tcl_sym_if 4 0 11]),
     (1363, [Entry 1 True, SHIFT 448]),
     (1365, [Entry 1 True, SHIFT 469]),
     (1367, [Entry 1 True, REDUCE tcl_sym_catch 4 0 0]),
     (1369, [Entry 1 False, REDUCE tcl_sym_catch 4 0 0]),
     (1371, [Entry 1 True, SHIFT 405]),
     (1373, [Entry 1 True, SHIFT 467]),
     (1375, [Entry 1 True, REDUCE tcl_sym_else 2 0 3]),
     (1377, [Entry 1 False, REDUCE tcl_sym_else 2 0 3]),
     (1379, [Entry 1 True, REDUCE tcl_sym_try 9 0 0]),
     (1381, [Entry 1 False, REDUCE tcl_sym_try 9 0 0]),
     (1383, [Entry 1 True, REDUCE tcl_sym_command 2 0 4]),
     (1385, [Entry 1 False, REDUCE tcl_sym_command 2 0 4]),
     (1387, [Entry 1 True, REDUCE tcl_sym_while 3 0 0]),
     (1389, [Entry 1 False, REDUCE tcl_sym_while 3 0 0]),
     (1391, [Entry 1 True, REDUCE tcl_aux_sym_braced_word_repeat2 2 0 0]),
     (1393, [Entry 1 True, REDUCE tcl_sym_set 6 0 0]),
     (1395, [Entry 1 False, REDUCE tcl_sym_set 6 0 0]),
     (1397, [Entry 1 True, REDUCE tcl_sym_argument 3 0 13]),
     (1399, [Entry 1 True, REDUCE tcl_sym_foreach 5 0 0]),
     (1401, [Entry 1 False, REDUCE tcl_sym_foreach 5 0 0]),
     (1403, [Entry 1 True, REDUCE tcl_sym_expr_cmd 2 0 0]),
     (1405, [Entry 1 False, REDUCE tcl_sym_expr_cmd 2 0 0]),
     (1407, [Entry 1 True, REDUCE tcl_sym_finally 3 0 0]),
     (1409, [Entry 1 False, REDUCE tcl_sym_finally 3 0 0]),
     (1411, [Entry 1 True, REDUCE tcl_sym_command 3 0 5]),
     (1413, [Entry 1 False, REDUCE tcl_sym_command 3 0 5]),
     (1415, [Entry 1 True, REDUCE tcl_sym_argument 1 0 1]),
     (1417, [Entry 1 True, REDUCE tcl_sym_try 4 0 0]),
     (1419, [Entry 1 False, REDUCE tcl_sym_try 4 0 0]),
     (1421, [Entry 1 True, REDUCE tcl_sym_procedure 5 0 14]),
     (1423, [Entry 1 False, REDUCE tcl_sym_procedure 5 0 14]),
     (1425, [Entry 1 True, REDUCE tcl_sym_procedure 5 0 15]),
     (1427, [Entry 1 False, REDUCE tcl_sym_procedure 5 0 15]),
     (1429, [Entry 1 True, REDUCE tcl_sym_else 3 0 7]),
     (1431, [Entry 1 False, REDUCE tcl_sym_else 3 0 7]),
     (1433, [Entry 1 True, REDUCE tcl_sym_if 5 0 16]),
     (1435, [Entry 1 False, REDUCE tcl_sym_if 5 0 16]),
     (1437, [Entry 1 True, REDUCE tcl_sym_if 5 0 18]),
     (1439, [Entry 1 False, REDUCE tcl_sym_if 5 0 18]),
     (1441, [Entry 1 True, REDUCE tcl_sym_argument 4 0 20]),
     (1443, [Entry 2 True, REDUCE tcl_aux_sym__concat_word_repeat1 2 0 0, SHIFT_REPEAT 371]),
     (1446, [Entry 1 True, SHIFT 72]),
     (1448, [Entry 1 False, SHIFT 72]),
     (1450, [Entry 1 True, SHIFT 382]),
     (1452, [Entry 1 True, SHIFT 269]),
     (1454, [Entry 1 True, SHIFT 508]),
     (1456, [Entry 1 True, SHIFT 285]),
     (1458, [Entry 1 True, SHIFT 338]),
     (1460, [Entry 1 True, SHIFT 601]),
     (1462, [Entry 1 True, SHIFT 408]),
     (1464, [Entry 1 True, SHIFT 124]),
     (1466, [Entry 1 True, SHIFT 458]),
     (1468, [Entry 1 True, SHIFT 288]),
     (1470, [Entry 1 True, SHIFT 409]),
     (1472, [Entry 1 True, SHIFT 411]),
     (1474, [Entry 1 True, SHIFT 431]),
     (1476, [Entry 1 True, SHIFT 314]),
     (1478, [Entry 1 True, SHIFT 369]),
     (1480, [Entry 1 True, SHIFT 506]),
     (1482, [Entry 1 True, SHIFT 507])]"

definition tcl_parse_actions_7 :: "(nat \<times> TSParseActionEntry list) list" where
  "tcl_parse_actions_7 =
    [(1484, [Entry 1 True, SHIFT 414]),
     (1486, [Entry 1 True, SHIFT 548]),
     (1488, [Entry 1 True, SHIFT 189]),
     (1490, [Entry 1 True, SHIFT 260]),
     (1492, [Entry 1 True, SHIFT 416]),
     (1494, [Entry 1 True, SHIFT 303]),
     (1496, [Entry 1 True, SHIFT 477]),
     (1498, [Entry 1 True, SHIFT 34]),
     (1500, [Entry 1 True, SHIFT 271]),
     (1502, [Entry 1 True, SHIFT 44]),
     (1504, [Entry 1 True, SHIFT 321]),
     (1506, [Entry 1 True, SHIFT 37]),
     (1508, [Entry 1 True, SHIFT 446]),
     (1510, [Entry 1 True, SHIFT 215]),
     (1512, [Entry 1 True, SHIFT 445]),
     (1514, [Entry 1 True, SHIFT 305]),
     (1516, [Entry 1 True, SHIFT 374]),
     (1518, [Entry 1 True, SHIFT 420]),
     (1520, [Entry 1 True, SHIFT 116]),
     (1522, [Entry 1 True, SHIFT 35]),
     (1524, [Entry 1 True, SHIFT 392]),
     (1526, [Entry 1 True, SHIFT 336]),
     (1528, [Entry 1 True, SHIFT 38]),
     (1530, [Entry 1 True, SHIFT 592]),
     (1532, [Entry 1 True, SHIFT 332]),
     (1534, [Entry 1 True, SHIFT 256]),
     (1536, [Entry 1 True, SHIFT 596]),
     (1538, [Entry 1 True, SHIFT 631]),
     (1540, [Entry 1 True, SHIFT 335]),
     (1542, [Entry 1 True, SHIFT 378]),
     (1544, [Entry 1 True, SHIFT 401]),
     (1546, [Entry 1 True, SHIFT 77]),
     (1548, [Entry 1 True, SHIFT 669]),
     (1550, [Entry 1 True, SHIFT 200]),
     (1552, [Entry 1 True, ACCEPT_INPUT]),
     (1554, [Entry 1 True, SHIFT 436]),
     (1556, [Entry 1 True, SHIFT 118]),
     (1558, [Entry 1 True, SHIFT 655]),
     (1560, [Entry 1 True, SHIFT 259]),
     (1562, [Entry 1 True, SHIFT 709]),
     (1564, [Entry 1 True, SHIFT 689]),
     (1566, [Entry 1 True, SHIFT 590]),
     (1568, [Entry 1 True, SHIFT 606]),
     (1570, [Entry 1 True, SHIFT 317]),
     (1572, [Entry 1 True, SHIFT 617]),
     (1574, [Entry 1 True, SHIFT 327]),
     (1576, [Entry 1 True, SHIFT 625]),
     (1578, [Entry 1 True, SHIFT 512]),
     (1580, [Entry 1 True, SHIFT 120]),
     (1582, [Entry 1 True, SHIFT 633]),
     (1584, [Entry 1 True, SHIFT 641]),
     (1586, [Entry 1 True, SHIFT 690]),
     (1588, [Entry 1 True, SHIFT 647]),
     (1590, [Entry 1 True, SHIFT 484]),
     (1592, [Entry 1 True, SHIFT 252]),
     (1594, [Entry 1 True, SHIFT 101]),
     (1596, [Entry 1 True, SHIFT 73]),
     (1598, [Entry 1 True, SHIFT 666]),
     (1600, [Entry 1 True, SHIFT 576]),
     (1602, [Entry 1 True, SHIFT 577]),
     (1604, [Entry 1 True, SHIFT 113]),
     (1606, [Entry 1 True, SHIFT 171]),
     (1608, [Entry 1 True, SHIFT 677]),
     (1610, [Entry 1 True, SHIFT 94]),
     (1612, [Entry 1 True, SHIFT 273])]"

definition tcl_ts_parse_actions :: "(nat \<times> TSParseActionEntry list) list" where
  "tcl_ts_parse_actions = tcl_parse_actions_0 @ tcl_parse_actions_1 @ tcl_parse_actions_2 @
    tcl_parse_actions_3 @ tcl_parse_actions_4 @ tcl_parse_actions_5 @ tcl_parse_actions_6 @
    tcl_parse_actions_7"

section \<open>External tokens and the language object\<close>

abbreviation (input) tcl_ts_external_token__concat :: nat where "tcl_ts_external_token__concat \<equiv> 0"
abbreviation (input) tcl_ts_external_token__immediate :: nat where "tcl_ts_external_token__immediate \<equiv> 1"

definition tcl_ts_external_scanner_symbol_map :: "(nat \<times> TSSymbol) list" where
  "tcl_ts_external_scanner_symbol_map =
    [(tcl_ts_external_token__concat, tcl_sym__concat),
     (tcl_ts_external_token__immediate, tcl_sym__immediate)]"

definition tcl_ts_external_scanner_states :: "(nat \<times> (nat \<times> bool) list) list" where
  "tcl_ts_external_scanner_states =
    [(1, [(tcl_ts_external_token__concat, True), (tcl_ts_external_token__immediate, True)]),
     (2, [(tcl_ts_external_token__concat, True)])]"

definition tree_sitter_tcl :: TSLanguage where
  "tree_sitter_tcl =
    \<lparr>abi_version = tcl_LANGUAGE_VERSION,
     symbol_count = tcl_SYMBOL_COUNT,
     alias_count = tcl_ALIAS_COUNT,
     token_count = tcl_TOKEN_COUNT,
     external_token_count = tcl_EXTERNAL_TOKEN_COUNT,
     state_count = tcl_STATE_COUNT,
     large_state_count = tcl_LARGE_STATE_COUNT,
     production_id_count = tcl_PRODUCTION_ID_COUNT,
     field_count = tcl_FIELD_COUNT,
     max_alias_sequence_length = tcl_MAX_ALIAS_SEQUENCE_LENGTH,
     parse_table = flat_table 0 tcl_SYMBOL_COUNT tcl_ts_parse_table,
     small_parse_table = designated_from 0 tcl_ts_small_parse_table,
     small_parse_table_map = array_of 0 tcl_ts_small_parse_table_map,
     parse_actions = designated_from (Entry 0 False) tcl_ts_parse_actions,
     symbol_names = array_of [] tcl_ts_symbol_names,
     field_names = Some (array_of None tcl_ts_field_names),
     field_map_slices = Some (array_of \<lparr>slice_index = 0, slice_length = 0\<rparr> tcl_ts_field_map_slices),
     field_map_entries =
       Some (designated_from \<lparr>field_id = 0, child_index = 0, inherited = False\<rparr> tcl_ts_field_map_entries),
     symbol_metadata = array_of \<lparr>visible = False, named = False, supertype = False\<rparr> tcl_ts_symbol_metadata,
     public_symbol_map = array_of 0 tcl_ts_symbol_map,
     alias_map = list_array 0 tcl_ts_non_terminal_alias_map,
     alias_sequences = flat_table 0 tcl_MAX_ALIAS_SEQUENCE_LENGTH tcl_ts_alias_sequences,
     lex_modes = (\<lambda>s. TSLexMode.truncate
       (array_of \<lparr>lex_state = 0, external_lex_state = 0, reserved_word_set_id = 0\<rparr> tcl_ts_lex_modes s)),
     language_lex = tcl_ts_lex,
     keyword_lex_fn = Some tcl_ts_lex_keywords,
     keyword_capture_token = tcl_sym_simple_word,
     external_states = flat_table False tcl_EXTERNAL_TOKEN_COUNT tcl_ts_external_scanner_states,
     external_symbol_map = array_of 0 tcl_ts_external_scanner_symbol_map,
     primary_state_ids = array_of 0 tcl_ts_primary_state_ids\<rparr>"

section \<open>Reading the initialisers\<close>

lemmas tcl_table_defs = tcl_ts_parse_table_def tcl_parse_row_0_def tcl_parse_row_1_def

lemmas tcl_run_defs =
  tcl_small_run_0_def tcl_small_run_101_def tcl_small_run_202_def tcl_small_run_303_def
    tcl_small_run_404_def tcl_small_run_505_def tcl_small_run_606_def tcl_small_run_707_def
    tcl_small_run_808_def tcl_small_run_909_def tcl_small_run_1010_def tcl_small_run_1111_def
    tcl_small_run_1212_def tcl_small_run_1310_def tcl_small_run_1404_def tcl_small_run_1498_def
    tcl_small_run_1592_def tcl_small_run_1686_def tcl_small_run_1780_def tcl_small_run_1871_def
    tcl_small_run_1962_def tcl_small_run_2053_def tcl_small_run_2144_def tcl_small_run_2235_def
    tcl_small_run_2326_def tcl_small_run_2417_def tcl_small_run_2508_def tcl_small_run_2599_def
    tcl_small_run_2690_def tcl_small_run_2733_def tcl_small_run_2776_def tcl_small_run_2819_def
    tcl_small_run_2862_def tcl_small_run_2905_def tcl_small_run_2940_def tcl_small_run_2979_def
    tcl_small_run_3018_def tcl_small_run_3051_def tcl_small_run_3084_def tcl_small_run_3117_def
    tcl_small_run_3150_def tcl_small_run_3183_def tcl_small_run_3216_def tcl_small_run_3249_def
    tcl_small_run_3309_def tcl_small_run_3341_def tcl_small_run_3375_def tcl_small_run_3415_def
    tcl_small_run_3457_def tcl_small_run_3503_def tcl_small_run_3551_def tcl_small_run_3601_def
    tcl_small_run_3653_def tcl_small_run_3707_def tcl_small_run_3763_def tcl_small_run_3819_def
    tcl_small_run_3877_def tcl_small_run_3909_def tcl_small_run_3941_def tcl_small_run_3973_def
    tcl_small_run_4005_def tcl_small_run_4043_def tcl_small_run_4103_def tcl_small_run_4163_def
    tcl_small_run_4223_def tcl_small_run_4283_def tcl_small_run_4343_def tcl_small_run_4403_def
    tcl_small_run_4463_def tcl_small_run_4495_def tcl_small_run_4555_def tcl_small_run_4584_def
    tcl_small_run_4627_def tcl_small_run_4670_def tcl_small_run_4713_def tcl_small_run_4756_def
    tcl_small_run_4799_def tcl_small_run_4842_def tcl_small_run_4885_def tcl_small_run_4928_def
    tcl_small_run_4971_def tcl_small_run_5014_def tcl_small_run_5057_def tcl_small_run_5100_def
    tcl_small_run_5143_def tcl_small_run_5186_def tcl_small_run_5229_def tcl_small_run_5272_def
    tcl_small_run_5315_def tcl_small_run_5358_def tcl_small_run_5401_def tcl_small_run_5444_def
    tcl_small_run_5487_def tcl_small_run_5530_def tcl_small_run_5573_def tcl_small_run_5613_def
    tcl_small_run_5653_def tcl_small_run_5690_def tcl_small_run_5727_def tcl_small_run_5764_def
    tcl_small_run_5790_def tcl_small_run_5828_def tcl_small_run_5854_def tcl_small_run_5880_def
    tcl_small_run_5918_def tcl_small_run_5944_def tcl_small_run_5970_def tcl_small_run_5995_def
    tcl_small_run_6030_def tcl_small_run_6067_def tcl_small_run_6102_def tcl_small_run_6137_def
    tcl_small_run_6168_def tcl_small_run_6199_def tcl_small_run_6234_def tcl_small_run_6258_def
    tcl_small_run_6282_def tcl_small_run_6300_def tcl_small_run_6330_def tcl_small_run_6352_def
    tcl_small_run_6382_def tcl_small_run_6406_def tcl_small_run_6430_def tcl_small_run_6454_def
    tcl_small_run_6486_def tcl_small_run_6518_def tcl_small_run_6540_def tcl_small_run_6572_def
    tcl_small_run_6602_def tcl_small_run_6634_def tcl_small_run_6666_def tcl_small_run_6688_def
    tcl_small_run_6712_def tcl_small_run_6744_def tcl_small_run_6776_def tcl_small_run_6808_def
    tcl_small_run_6840_def tcl_small_run_6870_def tcl_small_run_6894_def tcl_small_run_6926_def
    tcl_small_run_6956_def tcl_small_run_6980_def tcl_small_run_7012_def tcl_small_run_7036_def
    tcl_small_run_7060_def tcl_small_run_7091_def tcl_small_run_7122_def tcl_small_run_7151_def
    tcl_small_run_7182_def tcl_small_run_7213_def tcl_small_run_7236_def tcl_small_run_7267_def
    tcl_small_run_7298_def tcl_small_run_7329_def tcl_small_run_7360_def tcl_small_run_7389_def
    tcl_small_run_7420_def tcl_small_run_7451_def tcl_small_run_7470_def tcl_small_run_7501_def
    tcl_small_run_7520_def tcl_small_run_7545_def tcl_small_run_7574_def tcl_small_run_7605_def
    tcl_small_run_7636_def tcl_small_run_7659_def tcl_small_run_7690_def tcl_small_run_7721_def
    tcl_small_run_7752_def tcl_small_run_7783_def tcl_small_run_7806_def tcl_small_run_7835_def
    tcl_small_run_7866_def tcl_small_run_7897_def tcl_small_run_7928_def tcl_small_run_7957_def
    tcl_small_run_7988_def tcl_small_run_8017_def tcl_small_run_8048_def tcl_small_run_8079_def
    tcl_small_run_8102_def tcl_small_run_8121_def tcl_small_run_8140_def tcl_small_run_8169_def
    tcl_small_run_8198_def tcl_small_run_8227_def tcl_small_run_8258_def tcl_small_run_8281_def
    tcl_small_run_8304_def tcl_small_run_8333_def tcl_small_run_8356_def tcl_small_run_8387_def
    tcl_small_run_8418_def tcl_small_run_8441_def tcl_small_run_8472_def tcl_small_run_8503_def
    tcl_small_run_8526_def tcl_small_run_8545_def tcl_small_run_8574_def tcl_small_run_8605_def
    tcl_small_run_8628_def tcl_small_run_8656_def tcl_small_run_8684_def tcl_small_run_8704_def
    tcl_small_run_8726_def tcl_small_run_8754_def tcl_small_run_8782_def tcl_small_run_8798_def
    tcl_small_run_8826_def tcl_small_run_8854_def tcl_small_run_8870_def tcl_small_run_8898_def
    tcl_small_run_8920_def tcl_small_run_8942_def tcl_small_run_8964_def tcl_small_run_8986_def
    tcl_small_run_9008_def tcl_small_run_9036_def tcl_small_run_9064_def tcl_small_run_9092_def
    tcl_small_run_9120_def tcl_small_run_9142_def tcl_small_run_9170_def tcl_small_run_9198_def
    tcl_small_run_9226_def tcl_small_run_9254_def tcl_small_run_9278_def tcl_small_run_9306_def
    tcl_small_run_9334_def tcl_small_run_9362_def tcl_small_run_9390_def tcl_small_run_9406_def
    tcl_small_run_9434_def tcl_small_run_9462_def tcl_small_run_9478_def tcl_small_run_9498_def
    tcl_small_run_9520_def tcl_small_run_9548_def tcl_small_run_9576_def tcl_small_run_9604_def
    tcl_small_run_9632_def tcl_small_run_9660_def tcl_small_run_9688_def tcl_small_run_9716_def
    tcl_small_run_9744_def tcl_small_run_9772_def tcl_small_run_9800_def tcl_small_run_9828_def
    tcl_small_run_9856_def tcl_small_run_9884_def tcl_small_run_9912_def tcl_small_run_9928_def
    tcl_small_run_9944_def tcl_small_run_9966_def tcl_small_run_9994_def tcl_small_run_10016_def
    tcl_small_run_10044_def tcl_small_run_10072_def tcl_small_run_10088_def
    tcl_small_run_10108_def tcl_small_run_10130_def tcl_small_run_10158_def
    tcl_small_run_10186_def tcl_small_run_10202_def tcl_small_run_10224_def
    tcl_small_run_10252_def tcl_small_run_10274_def tcl_small_run_10302_def
    tcl_small_run_10324_def tcl_small_run_10352_def tcl_small_run_10368_def
    tcl_small_run_10396_def tcl_small_run_10412_def tcl_small_run_10440_def
    tcl_small_run_10468_def tcl_small_run_10490_def tcl_small_run_10518_def
    tcl_small_run_10546_def tcl_small_run_10574_def tcl_small_run_10602_def
    tcl_small_run_10630_def tcl_small_run_10658_def tcl_small_run_10677_def
    tcl_small_run_10690_def tcl_small_run_10709_def tcl_small_run_10722_def
    tcl_small_run_10747_def tcl_small_run_10762_def tcl_small_run_10789_def
    tcl_small_run_10808_def tcl_small_run_10821_def tcl_small_run_10840_def
    tcl_small_run_10853_def tcl_small_run_10878_def tcl_small_run_10903_def
    tcl_small_run_10916_def tcl_small_run_10941_def tcl_small_run_10960_def
    tcl_small_run_10979_def tcl_small_run_10998_def tcl_small_run_11023_def
    tcl_small_run_11042_def tcl_small_run_11061_def tcl_small_run_11080_def
    tcl_small_run_11095_def tcl_small_run_11122_def tcl_small_run_11140_def
    tcl_small_run_11158_def tcl_small_run_11172_def tcl_small_run_11186_def
    tcl_small_run_11206_def tcl_small_run_11224_def tcl_small_run_11238_def
    tcl_small_run_11258_def tcl_small_run_11276_def tcl_small_run_11294_def
    tcl_small_run_11308_def tcl_small_run_11326_def tcl_small_run_11350_def
    tcl_small_run_11364_def tcl_small_run_11378_def tcl_small_run_11398_def
    tcl_small_run_11418_def tcl_small_run_11436_def tcl_small_run_11450_def
    tcl_small_run_11468_def tcl_small_run_11482_def tcl_small_run_11500_def
    tcl_small_run_11518_def tcl_small_run_11538_def tcl_small_run_11552_def
    tcl_small_run_11570_def tcl_small_run_11588_def tcl_small_run_11612_def
    tcl_small_run_11624_def tcl_small_run_11638_def tcl_small_run_11660_def
    tcl_small_run_11674_def tcl_small_run_11692_def tcl_small_run_11705_def
    tcl_small_run_11724_def tcl_small_run_11745_def tcl_small_run_11758_def
    tcl_small_run_11771_def tcl_small_run_11790_def tcl_small_run_11803_def
    tcl_small_run_11822_def tcl_small_run_11843_def tcl_small_run_11856_def
    tcl_small_run_11873_def tcl_small_run_11886_def tcl_small_run_11905_def
    tcl_small_run_11924_def tcl_small_run_11943_def tcl_small_run_11962_def
    tcl_small_run_11981_def tcl_small_run_12000_def tcl_small_run_12019_def
    tcl_small_run_12038_def tcl_small_run_12061_def tcl_small_run_12074_def
    tcl_small_run_12097_def tcl_small_run_12110_def tcl_small_run_12123_def
    tcl_small_run_12136_def tcl_small_run_12149_def tcl_small_run_12162_def
    tcl_small_run_12175_def tcl_small_run_12188_def tcl_small_run_12207_def
    tcl_small_run_12228_def tcl_small_run_12241_def tcl_small_run_12260_def
    tcl_small_run_12277_def tcl_small_run_12298_def tcl_small_run_12317_def
    tcl_small_run_12334_def tcl_small_run_12347_def tcl_small_run_12360_def
    tcl_small_run_12383_def tcl_small_run_12396_def tcl_small_run_12409_def
    tcl_small_run_12432_def tcl_small_run_12445_def tcl_small_run_12464_def
    tcl_small_run_12477_def tcl_small_run_12490_def tcl_small_run_12503_def
    tcl_small_run_12524_def tcl_small_run_12543_def tcl_small_run_12556_def
    tcl_small_run_12569_def tcl_small_run_12588_def tcl_small_run_12609_def
    tcl_small_run_12628_def tcl_small_run_12647_def tcl_small_run_12665_def
    tcl_small_run_12681_def tcl_small_run_12697_def tcl_small_run_12713_def
    tcl_small_run_12731_def tcl_small_run_12747_def tcl_small_run_12763_def
    tcl_small_run_12781_def tcl_small_run_12793_def tcl_small_run_12807_def
    tcl_small_run_12825_def tcl_small_run_12843_def tcl_small_run_12857_def
    tcl_small_run_12875_def tcl_small_run_12887_def tcl_small_run_12901_def
    tcl_small_run_12919_def tcl_small_run_12933_def tcl_small_run_12945_def
    tcl_small_run_12957_def tcl_small_run_12975_def tcl_small_run_12991_def
    tcl_small_run_13003_def tcl_small_run_13015_def tcl_small_run_13031_def
    tcl_small_run_13043_def tcl_small_run_13055_def tcl_small_run_13071_def
    tcl_small_run_13083_def tcl_small_run_13095_def tcl_small_run_13107_def
    tcl_small_run_13119_def tcl_small_run_13131_def tcl_small_run_13143_def
    tcl_small_run_13155_def tcl_small_run_13167_def tcl_small_run_13185_def
    tcl_small_run_13197_def tcl_small_run_13215_def tcl_small_run_13233_def
    tcl_small_run_13251_def tcl_small_run_13263_def tcl_small_run_13274_def
    tcl_small_run_13287_def tcl_small_run_13298_def tcl_small_run_13309_def
    tcl_small_run_13320_def tcl_small_run_13331_def tcl_small_run_13342_def
    tcl_small_run_13353_def tcl_small_run_13364_def tcl_small_run_13375_def
    tcl_small_run_13394_def tcl_small_run_13405_def tcl_small_run_13416_def
    tcl_small_run_13435_def tcl_small_run_13454_def tcl_small_run_13473_def
    tcl_small_run_13490_def tcl_small_run_13507_def tcl_small_run_13524_def
    tcl_small_run_13532_def tcl_small_run_13542_def tcl_small_run_13552_def
    tcl_small_run_13568_def tcl_small_run_13578_def tcl_small_run_13586_def
    tcl_small_run_13600_def tcl_small_run_13616_def tcl_small_run_13632_def
    tcl_small_run_13646_def tcl_small_run_13662_def tcl_small_run_13676_def
    tcl_small_run_13690_def tcl_small_run_13704_def tcl_small_run_13718_def
    tcl_small_run_13728_def tcl_small_run_13744_def tcl_small_run_13752_def
    tcl_small_run_13760_def tcl_small_run_13768_def tcl_small_run_13784_def
    tcl_small_run_13800_def tcl_small_run_13816_def tcl_small_run_13832_def
    tcl_small_run_13842_def tcl_small_run_13858_def tcl_small_run_13866_def
    tcl_small_run_13882_def tcl_small_run_13896_def tcl_small_run_13904_def
    tcl_small_run_13920_def tcl_small_run_13936_def tcl_small_run_13950_def
    tcl_small_run_13966_def tcl_small_run_13982_def tcl_small_run_13998_def
    tcl_small_run_14006_def tcl_small_run_14022_def tcl_small_run_14032_def
    tcl_small_run_14048_def tcl_small_run_14062_def tcl_small_run_14078_def
    tcl_small_run_14094_def tcl_small_run_14110_def tcl_small_run_14126_def
    tcl_small_run_14142_def tcl_small_run_14150_def tcl_small_run_14164_def
    tcl_small_run_14172_def tcl_small_run_14182_def tcl_small_run_14192_def
    tcl_small_run_14208_def tcl_small_run_14222_def tcl_small_run_14236_def
    tcl_small_run_14250_def tcl_small_run_14260_def tcl_small_run_14271_def
    tcl_small_run_14282_def tcl_small_run_14291_def tcl_small_run_14302_def
    tcl_small_run_14313_def tcl_small_run_14322_def tcl_small_run_14335_def
    tcl_small_run_14346_def tcl_small_run_14353_def tcl_small_run_14360_def
    tcl_small_run_14373_def tcl_small_run_14380_def tcl_small_run_14387_def
    tcl_small_run_14394_def tcl_small_run_14407_def tcl_small_run_14414_def
    tcl_small_run_14425_def tcl_small_run_14436_def tcl_small_run_14449_def
    tcl_small_run_14460_def tcl_small_run_14469_def tcl_small_run_14477_def
    tcl_small_run_14485_def tcl_small_run_14493_def tcl_small_run_14501_def
    tcl_small_run_14509_def tcl_small_run_14517_def tcl_small_run_14527_def
    tcl_small_run_14537_def tcl_small_run_14547_def tcl_small_run_14555_def
    tcl_small_run_14563_def tcl_small_run_14571_def tcl_small_run_14579_def
    tcl_small_run_14587_def tcl_small_run_14595_def tcl_small_run_14603_def
    tcl_small_run_14611_def tcl_small_run_14619_def tcl_small_run_14627_def
    tcl_small_run_14635_def tcl_small_run_14645_def tcl_small_run_14653_def
    tcl_small_run_14663_def tcl_small_run_14671_def tcl_small_run_14681_def
    tcl_small_run_14689_def tcl_small_run_14697_def tcl_small_run_14705_def
    tcl_small_run_14713_def tcl_small_run_14721_def tcl_small_run_14729_def
    tcl_small_run_14735_def tcl_small_run_14743_def tcl_small_run_14749_def
    tcl_small_run_14757_def tcl_small_run_14765_def tcl_small_run_14773_def
    tcl_small_run_14783_def tcl_small_run_14791_def tcl_small_run_14801_def
    tcl_small_run_14809_def tcl_small_run_14819_def tcl_small_run_14829_def
    tcl_small_run_14837_def tcl_small_run_14845_def tcl_small_run_14851_def
    tcl_small_run_14859_def tcl_small_run_14867_def tcl_small_run_14875_def
    tcl_small_run_14881_def tcl_small_run_14889_def tcl_small_run_14897_def
    tcl_small_run_14905_def tcl_small_run_14913_def tcl_small_run_14921_def
    tcl_small_run_14929_def tcl_small_run_14935_def tcl_small_run_14941_def
    tcl_small_run_14951_def tcl_small_run_14959_def tcl_small_run_14969_def
    tcl_small_run_14979_def tcl_small_run_14989_def tcl_small_run_14999_def
    tcl_small_run_15009_def tcl_small_run_15019_def tcl_small_run_15029_def
    tcl_small_run_15036_def tcl_small_run_15040_def tcl_small_run_15044_def
    tcl_small_run_15048_def tcl_small_run_15052_def tcl_small_run_15056_def
    tcl_small_run_15060_def tcl_small_run_15064_def tcl_small_run_15068_def
    tcl_small_run_15072_def tcl_small_run_15076_def tcl_small_run_15080_def
    tcl_small_run_15084_def tcl_small_run_15088_def tcl_small_run_15092_def
    tcl_small_run_15096_def tcl_small_run_15100_def tcl_small_run_15104_def
    tcl_small_run_15108_def tcl_small_run_15112_def tcl_small_run_15116_def
    tcl_small_run_15120_def tcl_small_run_15124_def tcl_small_run_15128_def
    tcl_small_run_15132_def tcl_small_run_15136_def tcl_small_run_15140_def
    tcl_small_run_15144_def tcl_small_run_15148_def tcl_small_run_15152_def
    tcl_small_run_15156_def tcl_small_run_15160_def tcl_small_run_15164_def
    tcl_small_run_15168_def tcl_small_run_15172_def tcl_small_run_15176_def
    tcl_small_run_15180_def tcl_small_run_15184_def tcl_small_run_15188_def
    tcl_small_run_15192_def tcl_small_run_15196_def tcl_small_run_15200_def
    tcl_small_run_15204_def tcl_small_run_15208_def tcl_small_run_15212_def
    tcl_small_run_15216_def tcl_small_run_15220_def tcl_small_run_15224_def
    tcl_small_run_15228_def tcl_small_run_15232_def tcl_small_run_15236_def
    tcl_small_run_15240_def tcl_small_run_15244_def tcl_small_run_15248_def
    tcl_small_run_15252_def tcl_small_run_15256_def tcl_small_run_15260_def
    tcl_small_run_15264_def tcl_small_run_15268_def tcl_small_run_15272_def
    tcl_small_run_15276_def tcl_small_run_15280_def tcl_small_run_15284_def
    tcl_small_run_15288_def tcl_small_run_15292_def tcl_small_run_15296_def
    tcl_small_run_15300_def tcl_small_run_15304_def tcl_small_run_15308_def
    tcl_small_run_15312_def tcl_small_run_15316_def tcl_small_run_15320_def
    tcl_small_run_15324_def tcl_small_run_15328_def tcl_small_run_15332_def
    tcl_small_run_15336_def tcl_small_run_15340_def tcl_small_run_15344_def
    tcl_small_run_15348_def tcl_small_run_15352_def tcl_small_run_15356_def
    tcl_small_run_15360_def tcl_small_run_15364_def tcl_small_run_15368_def
    tcl_small_run_15372_def tcl_small_run_15376_def tcl_small_run_15380_def
    tcl_small_run_15384_def tcl_small_run_15388_def tcl_small_run_15392_def
    tcl_small_run_15396_def tcl_small_run_15400_def tcl_small_run_15404_def
    tcl_small_run_15408_def tcl_small_run_15412_def tcl_small_run_15416_def
    tcl_small_run_15420_def tcl_small_run_15424_def tcl_small_run_15428_def
    tcl_small_run_15432_def tcl_small_run_15436_def tcl_small_run_15440_def
    tcl_small_run_15444_def tcl_small_run_15448_def tcl_small_run_15452_def
    tcl_small_run_15456_def tcl_small_run_15460_def tcl_small_run_15464_def
    tcl_small_run_15468_def tcl_small_run_15472_def tcl_small_run_15476_def
    tcl_small_run_15480_def tcl_small_run_15484_def tcl_small_run_15488_def

lemmas tcl_small_table_defs =
  tcl_small_table_0_def tcl_small_table_1_def tcl_small_table_2_def tcl_small_table_3_def
    tcl_small_table_4_def tcl_small_table_5_def tcl_small_table_6_def tcl_small_table_7_def
    tcl_small_table_8_def tcl_small_table_9_def tcl_small_table_10_def tcl_small_table_11_def

lemmas tcl_small_map_defs =
  tcl_small_map_0_def tcl_small_map_1_def tcl_small_map_2_def tcl_small_map_3_def
    tcl_small_map_4_def tcl_small_map_5_def tcl_small_map_6_def tcl_small_map_7_def
    tcl_small_map_8_def tcl_small_map_9_def tcl_small_map_10_def tcl_small_map_11_def

lemmas tcl_action_defs =
  tcl_parse_actions_0_def tcl_parse_actions_1_def tcl_parse_actions_2_def tcl_parse_actions_3_def
    tcl_parse_actions_4_def tcl_parse_actions_5_def tcl_parse_actions_6_def
    tcl_parse_actions_7_def

lemma tcl_sizes:
  "symbol_count tree_sitter_tcl = tcl_SYMBOL_COUNT" "token_count tree_sitter_tcl = tcl_TOKEN_COUNT"
  "state_count tree_sitter_tcl = tcl_STATE_COUNT" "large_state_count tree_sitter_tcl = tcl_LARGE_STATE_COUNT"
  "production_id_count tree_sitter_tcl = tcl_PRODUCTION_ID_COUNT"
  "external_token_count tree_sitter_tcl = tcl_EXTERNAL_TOKEN_COUNT"
  by (simp_all add: tree_sitter_tcl_def)

text \<open>The runs of both flat tables follow each other without gaps.\<close>

lemma tcl_runs_follow:
  "contiguous_to 0 tcl_small_table_0 4005"
  "contiguous_to 4005 tcl_small_table_1 6382"
  "contiguous_to 6382 tcl_small_table_2 8102"
  "contiguous_to 8102 tcl_small_table_3 9632"
  "contiguous_to 9632 tcl_small_table_4 11023"
  "contiguous_to 11023 tcl_small_table_5 12074"
  "contiguous_to 12074 tcl_small_table_6 13031"
  "contiguous_to 13031 tcl_small_table_7 13832"
  "contiguous_to 13832 tcl_small_table_8 14527"
  "contiguous_to 14527 tcl_small_table_9 15029"
  "contiguous_to 15029 tcl_small_table_10 15272"
  "contiguous_to 15272 tcl_small_table_11 15492"
  by (simp_all add: tcl_small_table_defs tcl_run_defs)

lemma tcl_runs_contiguous: "contiguous 0 tcl_ts_small_parse_table"
  unfolding tcl_ts_small_parse_table_def
  by (rule contiguous_to_contiguous, (rule contiguous_to_append tcl_runs_follow)+)

lemma tcl_table_lengths:
  "length tcl_small_table_0 = 60"
  "length tcl_small_table_1 = 60"
  "length tcl_small_table_2 = 60"
  "length tcl_small_table_3 = 60"
  "length tcl_small_table_4 = 60"
  "length tcl_small_table_5 = 60"
  "length tcl_small_table_6 = 60"
  "length tcl_small_table_7 = 60"
  "length tcl_small_table_8 = 60"
  "length tcl_small_table_9 = 60"
  "length tcl_small_table_10 = 60"
  "length tcl_small_table_11 = 55"
  by (simp_all add: tcl_small_table_defs)

lemma tcl_actions_follow:
  "contiguous_to 0 tcl_parse_actions_0 221"
  "contiguous_to 221 tcl_parse_actions_1 423"
  "contiguous_to 423 tcl_parse_actions_2 650"
  "contiguous_to 650 tcl_parse_actions_3 862"
  "contiguous_to 862 tcl_parse_actions_4 1072"
  "contiguous_to 1072 tcl_parse_actions_5 1279"
  "contiguous_to 1279 tcl_parse_actions_6 1484"
  "contiguous_to 1484 tcl_parse_actions_7 1614"
  by (simp_all add: tcl_action_defs action_macros)

lemma tcl_actions_contiguous: "contiguous 0 tcl_ts_parse_actions"
  unfolding tcl_ts_parse_actions_def
  by (rule contiguous_to_contiguous, (rule contiguous_to_append tcl_actions_follow)+)

text \<open>The map of the small states numbers them and points to the runs in their order.\<close>

lemma tcl_map_numbered:
  "numbered 0 tcl_small_map_0 60"
  "numbered 60 tcl_small_map_1 120"
  "numbered 120 tcl_small_map_2 180"
  "numbered 180 tcl_small_map_3 240"
  "numbered 240 tcl_small_map_4 300"
  "numbered 300 tcl_small_map_5 360"
  "numbered 360 tcl_small_map_6 420"
  "numbered 420 tcl_small_map_7 480"
  "numbered 480 tcl_small_map_8 540"
  "numbered 540 tcl_small_map_9 600"
  "numbered 600 tcl_small_map_10 660"
  "numbered 660 tcl_small_map_11 715"
  by (simp_all add: tcl_small_map_defs numbered_def SMALL_STATE_def upt_rec)

lemma tcl_map_runs_pieces:
  "map snd tcl_small_map_0 = map fst tcl_small_table_0"
  "map snd tcl_small_map_1 = map fst tcl_small_table_1"
  "map snd tcl_small_map_2 = map fst tcl_small_table_2"
  "map snd tcl_small_map_3 = map fst tcl_small_table_3"
  "map snd tcl_small_map_4 = map fst tcl_small_table_4"
  "map snd tcl_small_map_5 = map fst tcl_small_table_5"
  "map snd tcl_small_map_6 = map fst tcl_small_table_6"
  "map snd tcl_small_map_7 = map fst tcl_small_table_7"
  "map snd tcl_small_map_8 = map fst tcl_small_table_8"
  "map snd tcl_small_map_9 = map fst tcl_small_table_9"
  "map snd tcl_small_map_10 = map fst tcl_small_table_10"
  "map snd tcl_small_map_11 = map fst tcl_small_table_11"
  by (simp_all add: tcl_small_map_defs tcl_small_table_defs)

lemma tcl_map_runs: "map snd tcl_ts_small_parse_table_map = map fst tcl_ts_small_parse_table"
  by (simp add: tcl_ts_small_parse_table_map_def tcl_ts_small_parse_table_def tcl_map_runs_pieces)

lemma tcl_map_states: "map fst tcl_ts_small_parse_table_map = [0..<tcl_STATE_COUNT - tcl_LARGE_STATE_COUNT]"
proof -
  have "numbered 0 tcl_ts_small_parse_table_map 715"
    unfolding tcl_ts_small_parse_table_map_def by ((rule numbered_append tcl_map_numbered)+)
  then show ?thesis by (simp add: numbered_def)
qed

lemma tcl_no_action: "(0, [Entry 0 False]) \<in> set tcl_ts_parse_actions"
  by (simp add: tcl_ts_parse_actions_def tcl_parse_actions_0_def)

interpretation tcl_init: table_initialisers tree_sitter_tcl tcl_ts_parse_table tcl_ts_small_parse_table_map
    tcl_ts_small_parse_table tcl_ts_parse_actions
  by unfold_locales
    (simp_all add: tree_sitter_tcl_def tcl_runs_contiguous tcl_actions_contiguous tcl_map_states tcl_no_action)

text \<open>Look-ups in the tables, as rewrite rules.\<close>

lemmas tcl_action_piece = array_of_piece [OF conjunct1 [OF contiguous_keys [OF tcl_actions_contiguous]]]

lemma tcl_action_pieces:
  "set tcl_parse_actions_0 \<subseteq> set tcl_ts_parse_actions"
  "set tcl_parse_actions_1 \<subseteq> set tcl_ts_parse_actions"
  "set tcl_parse_actions_2 \<subseteq> set tcl_ts_parse_actions"
  "set tcl_parse_actions_3 \<subseteq> set tcl_ts_parse_actions"
  "set tcl_parse_actions_4 \<subseteq> set tcl_ts_parse_actions"
  "set tcl_parse_actions_5 \<subseteq> set tcl_ts_parse_actions"
  "set tcl_parse_actions_6 \<subseteq> set tcl_ts_parse_actions"
  "set tcl_parse_actions_7 \<subseteq> set tcl_ts_parse_actions"
  by (auto simp: tcl_ts_parse_actions_def)

lemmas tcl_action_facts =
  tcl_action_piece [OF tcl_action_pieces(1), of "[]", simplified tcl_parse_actions_0_def action_macros list.pred_inject prod.case One_nat_def simp_thms]
  tcl_action_piece [OF tcl_action_pieces(2), of "[]", simplified tcl_parse_actions_1_def action_macros list.pred_inject prod.case One_nat_def simp_thms]
  tcl_action_piece [OF tcl_action_pieces(3), of "[]", simplified tcl_parse_actions_2_def action_macros list.pred_inject prod.case One_nat_def simp_thms]
  tcl_action_piece [OF tcl_action_pieces(4), of "[]", simplified tcl_parse_actions_3_def action_macros list.pred_inject prod.case One_nat_def simp_thms]
  tcl_action_piece [OF tcl_action_pieces(5), of "[]", simplified tcl_parse_actions_4_def action_macros list.pred_inject prod.case One_nat_def simp_thms]
  tcl_action_piece [OF tcl_action_pieces(6), of "[]", simplified tcl_parse_actions_5_def action_macros list.pred_inject prod.case One_nat_def simp_thms]
  tcl_action_piece [OF tcl_action_pieces(7), of "[]", simplified tcl_parse_actions_6_def action_macros list.pred_inject prod.case One_nat_def simp_thms]
  tcl_action_piece [OF tcl_action_pieces(8), of "[]", simplified tcl_parse_actions_7_def action_macros list.pred_inject prod.case One_nat_def simp_thms]

lemmas tcl_run_piece = array_of_piece [OF conjunct1 [OF contiguous_keys [OF tcl_runs_contiguous]]]

lemma tcl_run_pieces:
  "set tcl_small_table_0 \<subseteq> set tcl_ts_small_parse_table"
  "set tcl_small_table_1 \<subseteq> set tcl_ts_small_parse_table"
  "set tcl_small_table_2 \<subseteq> set tcl_ts_small_parse_table"
  "set tcl_small_table_3 \<subseteq> set tcl_ts_small_parse_table"
  "set tcl_small_table_4 \<subseteq> set tcl_ts_small_parse_table"
  "set tcl_small_table_5 \<subseteq> set tcl_ts_small_parse_table"
  "set tcl_small_table_6 \<subseteq> set tcl_ts_small_parse_table"
  "set tcl_small_table_7 \<subseteq> set tcl_ts_small_parse_table"
  "set tcl_small_table_8 \<subseteq> set tcl_ts_small_parse_table"
  "set tcl_small_table_9 \<subseteq> set tcl_ts_small_parse_table"
  "set tcl_small_table_10 \<subseteq> set tcl_ts_small_parse_table"
  "set tcl_small_table_11 \<subseteq> set tcl_ts_small_parse_table"
  by (auto simp: tcl_ts_small_parse_table_def)

lemmas tcl_run_facts =
  tcl_run_piece [OF tcl_run_pieces(1), of "[]", simplified tcl_small_table_0_def list.pred_inject prod.case One_nat_def simp_thms]
  tcl_run_piece [OF tcl_run_pieces(2), of "[]", simplified tcl_small_table_1_def list.pred_inject prod.case One_nat_def simp_thms]
  tcl_run_piece [OF tcl_run_pieces(3), of "[]", simplified tcl_small_table_2_def list.pred_inject prod.case One_nat_def simp_thms]
  tcl_run_piece [OF tcl_run_pieces(4), of "[]", simplified tcl_small_table_3_def list.pred_inject prod.case One_nat_def simp_thms]
  tcl_run_piece [OF tcl_run_pieces(5), of "[]", simplified tcl_small_table_4_def list.pred_inject prod.case One_nat_def simp_thms]
  tcl_run_piece [OF tcl_run_pieces(6), of "[]", simplified tcl_small_table_5_def list.pred_inject prod.case One_nat_def simp_thms]
  tcl_run_piece [OF tcl_run_pieces(7), of "[]", simplified tcl_small_table_6_def list.pred_inject prod.case One_nat_def simp_thms]
  tcl_run_piece [OF tcl_run_pieces(8), of "[]", simplified tcl_small_table_7_def list.pred_inject prod.case One_nat_def simp_thms]
  tcl_run_piece [OF tcl_run_pieces(9), of "[]", simplified tcl_small_table_8_def list.pred_inject prod.case One_nat_def simp_thms]
  tcl_run_piece [OF tcl_run_pieces(10), of "[]", simplified tcl_small_table_9_def list.pred_inject prod.case One_nat_def simp_thms]
  tcl_run_piece [OF tcl_run_pieces(11), of "[]", simplified tcl_small_table_10_def list.pred_inject prod.case One_nat_def simp_thms]
  tcl_run_piece [OF tcl_run_pieces(12), of "[]", simplified tcl_small_table_11_def list.pred_inject prod.case One_nat_def simp_thms]

lemmas tcl_map_piece = array_of_piece [OF distinct_map_fst [OF tcl_map_states]]

lemma tcl_map_pieces:
  "set tcl_small_map_0 \<subseteq> set tcl_ts_small_parse_table_map"
  "set tcl_small_map_1 \<subseteq> set tcl_ts_small_parse_table_map"
  "set tcl_small_map_2 \<subseteq> set tcl_ts_small_parse_table_map"
  "set tcl_small_map_3 \<subseteq> set tcl_ts_small_parse_table_map"
  "set tcl_small_map_4 \<subseteq> set tcl_ts_small_parse_table_map"
  "set tcl_small_map_5 \<subseteq> set tcl_ts_small_parse_table_map"
  "set tcl_small_map_6 \<subseteq> set tcl_ts_small_parse_table_map"
  "set tcl_small_map_7 \<subseteq> set tcl_ts_small_parse_table_map"
  "set tcl_small_map_8 \<subseteq> set tcl_ts_small_parse_table_map"
  "set tcl_small_map_9 \<subseteq> set tcl_ts_small_parse_table_map"
  "set tcl_small_map_10 \<subseteq> set tcl_ts_small_parse_table_map"
  "set tcl_small_map_11 \<subseteq> set tcl_ts_small_parse_table_map"
  by (auto simp: tcl_ts_small_parse_table_map_def)

lemmas tcl_map_facts =
  tcl_map_piece [OF tcl_map_pieces(1), of 0, simplified tcl_small_map_0_def SMALL_STATE_def list.pred_inject prod.case One_nat_def simp_thms, simplified]
  tcl_map_piece [OF tcl_map_pieces(2), of 0, simplified tcl_small_map_1_def SMALL_STATE_def list.pred_inject prod.case One_nat_def simp_thms, simplified]
  tcl_map_piece [OF tcl_map_pieces(3), of 0, simplified tcl_small_map_2_def SMALL_STATE_def list.pred_inject prod.case One_nat_def simp_thms, simplified]
  tcl_map_piece [OF tcl_map_pieces(4), of 0, simplified tcl_small_map_3_def SMALL_STATE_def list.pred_inject prod.case One_nat_def simp_thms, simplified]
  tcl_map_piece [OF tcl_map_pieces(5), of 0, simplified tcl_small_map_4_def SMALL_STATE_def list.pred_inject prod.case One_nat_def simp_thms, simplified]
  tcl_map_piece [OF tcl_map_pieces(6), of 0, simplified tcl_small_map_5_def SMALL_STATE_def list.pred_inject prod.case One_nat_def simp_thms, simplified]
  tcl_map_piece [OF tcl_map_pieces(7), of 0, simplified tcl_small_map_6_def SMALL_STATE_def list.pred_inject prod.case One_nat_def simp_thms, simplified]
  tcl_map_piece [OF tcl_map_pieces(8), of 0, simplified tcl_small_map_7_def SMALL_STATE_def list.pred_inject prod.case One_nat_def simp_thms, simplified]
  tcl_map_piece [OF tcl_map_pieces(9), of 0, simplified tcl_small_map_8_def SMALL_STATE_def list.pred_inject prod.case One_nat_def simp_thms, simplified]
  tcl_map_piece [OF tcl_map_pieces(10), of 0, simplified tcl_small_map_9_def SMALL_STATE_def list.pred_inject prod.case One_nat_def simp_thms, simplified]
  tcl_map_piece [OF tcl_map_pieces(11), of 0, simplified tcl_small_map_10_def SMALL_STATE_def list.pred_inject prod.case One_nat_def simp_thms, simplified]
  tcl_map_piece [OF tcl_map_pieces(12), of 0, simplified tcl_small_map_11_def SMALL_STATE_def list.pred_inject prod.case One_nat_def simp_thms, simplified]

end
