(* ===== verification/Tcl_Grammar.thy ===== *)
theory Tcl_Grammar
  imports Tcl_Lex Lr_Tables
begin

text \<open>
  The rules of \<^verbatim>\<open>tree-sitter-tcl/src/grammar.json\<close>, one definition per rule. A rule
  whose body is a pattern is a token; the tokens inside other rules go by the names the generated
  parser gives them: \<^verbatim>\<open>anon_sym_COLON_COLON\<close> and
  \<^verbatim>\<open>anon_sym_LPAREN\<close> are the immediate tokens, \<^verbatim>\<open>anon_sym_COLON_COLON2\<close> and
  \<^verbatim>\<open>anon_sym_LPAREN2\<close> the plain ones. The three rules the grammar
  declares \<^verbatim>\<open>inline\<close> have no symbol and are substituted where they are used.
\<close>

section \<open>Inlined rules\<close>

definition tcl_rule_terminator :: grammar_rule where
  "tcl_rule_terminator = CHOICE [SYM tcl_anon_sym_LF, SYM tcl_anon_sym_SEMI]"

definition tcl_rule_word :: grammar_rule where
  "tcl_rule_word = SEQ [OPTIONAL (SYM tcl_sym_unpack), CHOICE [SYM tcl_sym_braced_word, SYM
    tcl_sym__concat_word]]"

definition tcl_rule_builtin :: grammar_rule where
  "tcl_rule_builtin = CHOICE [SYM tcl_sym__conditional, SYM tcl_sym_global, SYM tcl_sym_namespace,
    SYM tcl_sym_procedure, SYM tcl_sym_set, SYM tcl_sym_try, SYM tcl_sym_foreach, SYM
    tcl_sym_expr_cmd, SYM tcl_sym_while, SYM tcl_sym_catch, SYM tcl_sym_regexp]"

section \<open>Rules\<close>

definition tcl_rule_source_file :: grammar_rule where
  "tcl_rule_source_file = REPEAT tcl_aux_sym_source_file_repeat1 (SEQ [OPTIONAL (SYM
    tcl_sym__command), tcl_rule_terminator])"

definition tcl_rule_regexp :: grammar_rule where
  "tcl_rule_regexp = SEQ [SYM tcl_anon_sym_regexp, SYM tcl_sym__word_simple, SYM
    tcl_sym__concat_word, REPEAT tcl_aux_sym_regexp_repeat1 (SYM tcl_sym__concat_word)]"

definition tcl_rule_while :: grammar_rule where
  "tcl_rule_while = SEQ [SYM tcl_anon_sym_while, SYM tcl_sym_expr, tcl_rule_word]"

definition tcl_rule_expr_cmd :: grammar_rule where
  "tcl_rule_expr_cmd = SEQ [SYM tcl_anon_sym_expr, SYM tcl_sym_expr]"

definition tcl_rule_foreach :: grammar_rule where
  "tcl_rule_foreach = SEQ [SYM tcl_anon_sym_foreach, SYM tcl_sym_arguments, SYM
    tcl_sym__word_simple, tcl_rule_word]"

definition tcl_rule_global :: grammar_rule where
  "tcl_rule_global = SEQ [SYM tcl_anon_sym_global, REPEAT tcl_aux_sym_regexp_repeat1 (SYM
    tcl_sym__concat_word)]"

definition tcl_rule_namespace :: grammar_rule where
  "tcl_rule_namespace = SEQ [SYM tcl_anon_sym_namespace, SYM tcl_sym_word_list]"

definition tcl_rule_try :: grammar_rule where
  "tcl_rule_try = SEQ [SYM tcl_anon_sym_try, tcl_rule_word, OPTIONAL (SEQ [SYM tcl_anon_sym_on,
    SYM tcl_anon_sym_error, SYM tcl_sym_arguments, tcl_rule_word]), OPTIONAL (SYM
    tcl_sym_finally)]"

definition tcl_rule_finally :: grammar_rule where
  "tcl_rule_finally = SEQ [SYM tcl_anon_sym_finally, tcl_rule_word]"

definition tcl_rule_hidden_command :: grammar_rule where
  "tcl_rule_hidden_command = CHOICE [tcl_rule_builtin, SYM tcl_sym_comment, SYM tcl_sym_command]"

definition tcl_rule_command :: grammar_rule where
  "tcl_rule_command = SEQ [tcl_rule_word, OPTIONAL (SYM tcl_sym_word_list)]"

definition tcl_rule_word_list :: grammar_rule where
  "tcl_rule_word_list = REPEAT1 tcl_aux_sym_word_list_repeat1 (tcl_rule_word)"

definition tcl_rule_hidden_word_simple :: grammar_rule where
  "tcl_rule_hidden_word_simple = SEQ [CHOICE [SYM tcl_sym_escaped_character, SYM
    tcl_sym_command_substitution, SYM tcl_sym_simple_word, SYM tcl_sym_quoted_word, SYM
    tcl_sym_variable_substitution, SYM tcl_sym_braced_word_simple], REPEAT
    tcl_aux_sym__word_simple_repeat1 (SEQ [SYM tcl_sym__concat, CHOICE [SYM
    tcl_sym_escaped_character, SYM tcl_sym_command_substitution, SYM tcl_sym_simple_word, SYM
    tcl_sym_quoted_word, SYM tcl_sym_variable_substitution, SYM tcl_sym_braced_word_simple]])]"

definition tcl_rule_hidden_concat_word :: grammar_rule where
  "tcl_rule_hidden_concat_word = SEQ [CHOICE [SYM tcl_sym_escaped_character, SYM
    tcl_sym_command_substitution, SEQ [SYM tcl_sym_simple_word, OPTIONAL (SYM
    tcl_sym_array_index)], SYM tcl_sym_quoted_word, SYM tcl_sym_variable_substitution], REPEAT
    tcl_aux_sym__concat_word_repeat1 (SEQ [SYM tcl_sym__concat, CHOICE [SYM
    tcl_sym_escaped_character, SYM tcl_sym_command_substitution, SEQ [SYM tcl_sym_simple_word,
    OPTIONAL (SYM tcl_sym_array_index)], SYM tcl_sym_quoted_word, SYM
    tcl_sym_variable_substitution]])]"

definition tcl_rule_hidden_ns_delim :: grammar_rule where
  "tcl_rule_hidden_ns_delim = SYM tcl_anon_sym_COLON_COLON"

definition tcl_rule_hidden_id_immediate :: grammar_rule where
  "tcl_rule_hidden_id_immediate = SEQ [OPTIONAL (SYM tcl_sym__ns_delim), SYM tcl_sym__ident_imm,
    REPEAT tcl_aux_sym__id_immediate_repeat1 (SEQ [SYM tcl_sym__ns_delim, SYM
    tcl_sym__ident_imm])]"

definition tcl_rule_id :: grammar_rule where
  "tcl_rule_id = SEQ [CHOICE [SEQ [SYM tcl_anon_sym_COLON_COLON2, SYM tcl_sym__ident_imm], SYM
    tcl_sym__ident], REPEAT tcl_aux_sym__id_immediate_repeat1 (SEQ [SYM tcl_sym__ns_delim, SYM
    tcl_sym__ident_imm])]"

definition tcl_rule_array_index :: grammar_rule where
  "tcl_rule_array_index = SEQ [SYM tcl_anon_sym_LPAREN, SYM tcl_sym__word_simple, SYM
    tcl_anon_sym_RPAREN]"

definition tcl_rule_variable_substitution :: grammar_rule where
  "tcl_rule_variable_substitution = SEQ [CHOICE [SEQ [SYM tcl_anon_sym_DOLLAR, SYM
    tcl_sym__id_immediate], SEQ [SYM tcl_anon_sym_DOLLAR, SYM tcl_anon_sym_LBRACE, SYM
    tcl_aux_sym_variable_substitution_token1, SYM tcl_anon_sym_RBRACE]], OPTIONAL (SYM
    tcl_sym_array_index)]"

definition tcl_rule_braced_word :: grammar_rule where
  "tcl_rule_braced_word = SEQ [SYM tcl_anon_sym_LBRACE, OPTIONAL (SEQ [SEQ [SYM tcl_sym__command,
    REPEAT tcl_aux_sym_braced_word_repeat2 (SEQ [REPEAT1 tcl_aux_sym_braced_word_repeat1
    (tcl_rule_terminator), SYM tcl_sym__command])], REPEAT tcl_aux_sym_braced_word_repeat1
    (tcl_rule_terminator)]), SYM tcl_anon_sym_RBRACE]"

definition tcl_rule_braced_word_simple :: grammar_rule where
  "tcl_rule_braced_word_simple = SEQ [SYM tcl_anon_sym_LBRACE, REPEAT
    tcl_aux_sym_braced_word_simple_repeat1 (SYM tcl_sym__word_simple), SYM tcl_anon_sym_RBRACE]"

definition tcl_rule_set :: grammar_rule where
  "tcl_rule_set = SEQ [SYM tcl_anon_sym_set, CHOICE [SEQ [SYM tcl_sym_id, OPTIONAL (SYM
    tcl_sym_array_index)], SEQ [SYM tcl_anon_sym_DOLLAR, SYM tcl_anon_sym_LBRACE, SYM
    tcl_aux_sym_variable_substitution_token1, SYM tcl_anon_sym_RBRACE]], OPTIONAL (SYM
    tcl_sym__word_simple)]"

definition tcl_rule_procedure :: grammar_rule where
  "tcl_rule_procedure = SEQ [SYM tcl_anon_sym_proc, tcl_rule_word, SYM tcl_sym_arguments,
    tcl_rule_word]"

definition tcl_rule_hidden_argument_word :: grammar_rule where
  "tcl_rule_hidden_argument_word = CHOICE [SYM tcl_sym_simple_word, SYM tcl_sym_quoted_word, SYM
    tcl_sym_braced_word]"

definition tcl_rule_argument :: grammar_rule where
  "tcl_rule_argument = CHOICE [SYM tcl_sym_simple_word, SEQ [SYM tcl_anon_sym_LBRACE, SYM
    tcl_sym_simple_word, OPTIONAL (SYM tcl_sym__argument_word), SYM tcl_anon_sym_RBRACE]]"

definition tcl_rule_arguments :: grammar_rule where
  "tcl_rule_arguments = CHOICE [SEQ [SYM tcl_anon_sym_LBRACE, REPEAT tcl_aux_sym_arguments_repeat1
    (SYM tcl_sym_argument), SYM tcl_anon_sym_RBRACE], SYM tcl_sym_simple_word]"

definition tcl_rule_hidden_expr_atom_no_brace :: grammar_rule where
  "tcl_rule_hidden_expr_atom_no_brace = CHOICE [SYM tcl_sym_number, SYM tcl_sym__boolean, SEQ [SYM
    tcl_sym_simple_word, SYM tcl_anon_sym_LPAREN2, SYM tcl_sym__expr, SYM tcl_anon_sym_RPAREN],
    SYM tcl_sym_command_substitution, SYM tcl_sym_quoted_word, SYM tcl_sym_variable_substitution]"

definition tcl_rule_hidden_expr :: grammar_rule where
  "tcl_rule_hidden_expr = CHOICE [SYM tcl_sym_unary_expr, SYM tcl_sym_binop_expr, SYM
    tcl_sym_ternary_expr, SYM tcl_sym_escaped_character, SEQ [SYM tcl_anon_sym_LPAREN2, SYM
    tcl_sym__expr, SYM tcl_anon_sym_RPAREN], SYM tcl_sym__expr_atom_no_brace, SYM
    tcl_sym_braced_word_simple]"

definition tcl_rule_expr :: grammar_rule where
  "tcl_rule_expr = CHOICE [SEQ [SYM tcl_anon_sym_LBRACE, SYM tcl_sym__expr, SYM
    tcl_anon_sym_RBRACE], SYM tcl_sym__expr_atom_no_brace]"

definition tcl_rule_unary_expr :: grammar_rule where
  "tcl_rule_unary_expr = SEQ [CHOICE [SYM tcl_anon_sym_DASH, SYM tcl_anon_sym_PLUS, SYM
    tcl_anon_sym_TILDE, SYM tcl_anon_sym_BANG], SYM tcl_sym__expr]"

definition tcl_rule_binop_expr :: grammar_rule where
  "tcl_rule_binop_expr = CHOICE [SEQ [SYM tcl_sym__expr, SYM tcl_anon_sym_STAR_STAR, SYM
    tcl_sym__expr], SEQ [SYM tcl_sym__expr, CHOICE [SYM tcl_anon_sym_SLASH, SYM tcl_anon_sym_STAR,
    SYM tcl_anon_sym_PERCENT], SYM tcl_sym__expr], SEQ [SYM tcl_sym__expr, CHOICE [SYM
    tcl_anon_sym_PLUS, SYM tcl_anon_sym_DASH], SYM tcl_sym__expr], SEQ [SYM tcl_sym__expr, CHOICE
    [SYM tcl_anon_sym_LT_LT, SYM tcl_anon_sym_GT_GT], SYM tcl_sym__expr], SEQ [SYM tcl_sym__expr,
    CHOICE [SYM tcl_anon_sym_GT, SYM tcl_anon_sym_LT, SYM tcl_anon_sym_GT_EQ, SYM
    tcl_anon_sym_LT_EQ], SYM tcl_sym__expr], SEQ [SYM tcl_sym__expr, CHOICE [SYM
    tcl_anon_sym_EQ_EQ, SYM tcl_anon_sym_BANG_EQ], SYM tcl_sym__expr], SEQ [SYM tcl_sym__expr,
    CHOICE [SYM tcl_anon_sym_eq, SYM tcl_anon_sym_ne], SYM tcl_sym__expr], SEQ [SYM tcl_sym__expr,
    CHOICE [SYM tcl_anon_sym_in, SYM tcl_anon_sym_ni], SYM tcl_sym__expr], SEQ [SYM tcl_sym__expr,
    SYM tcl_anon_sym_AMP, SYM tcl_sym__expr], SEQ [SYM tcl_sym__expr, SYM tcl_anon_sym_CARET, SYM
    tcl_sym__expr], SEQ [SYM tcl_sym__expr, SYM tcl_anon_sym_PIPE, SYM tcl_sym__expr], SEQ [SYM
    tcl_sym__expr, SYM tcl_anon_sym_AMP_AMP, SYM tcl_sym__expr], SEQ [SYM tcl_sym__expr, SYM
    tcl_anon_sym_PIPE_PIPE, SYM tcl_sym__expr]]"

definition tcl_rule_ternary_expr :: grammar_rule where
  "tcl_rule_ternary_expr = SEQ [SYM tcl_sym__expr, SYM tcl_anon_sym_QMARK, SYM tcl_sym__expr, SYM
    tcl_anon_sym_COLON, SYM tcl_sym__expr]"

definition tcl_rule_elseif :: grammar_rule where
  "tcl_rule_elseif = SEQ [SYM tcl_anon_sym_elseif, SYM tcl_sym_expr, tcl_rule_word]"

definition tcl_rule_else :: grammar_rule where
  "tcl_rule_else = SEQ [SYM tcl_anon_sym_else, tcl_rule_word]"

definition tcl_rule_if :: grammar_rule where
  "tcl_rule_if = SEQ [SYM tcl_anon_sym_if, SYM tcl_sym_expr, tcl_rule_word, REPEAT
    tcl_aux_sym_if_repeat1 (SYM tcl_sym_elseif), OPTIONAL (SYM tcl_sym_else)]"

definition tcl_rule_hidden_conditional :: grammar_rule where
  "tcl_rule_hidden_conditional = CHOICE [SYM tcl_sym_if, SYM tcl_sym_else, SYM tcl_sym_elseif]"

definition tcl_rule_catch :: grammar_rule where
  "tcl_rule_catch = SEQ [SYM tcl_anon_sym_catch, tcl_rule_word, OPTIONAL (SYM
    tcl_sym__concat_word)]"

definition tcl_rule_quoted_word :: grammar_rule where
  "tcl_rule_quoted_word = SEQ [SYM tcl_anon_sym_DQUOTE, REPEAT tcl_aux_sym_quoted_word_repeat1
    (CHOICE [SYM tcl_sym_variable_substitution, SYM tcl_sym__quoted_word_content, SYM
    tcl_sym_command_substitution, SYM tcl_sym_escaped_character]), SYM tcl_anon_sym_DQUOTE]"

definition tcl_rule_command_substitution :: grammar_rule where
  "tcl_rule_command_substitution = SEQ [SYM tcl_anon_sym_LBRACK, SYM tcl_sym__command, SYM
    tcl_anon_sym_RBRACK]"

definition tcl_rules :: "(TSSymbol \<times> grammar_rule) list" where
  "tcl_rules =
    [(tcl_sym_source_file, tcl_rule_source_file),
     (tcl_sym_regexp, tcl_rule_regexp),
     (tcl_sym_while, tcl_rule_while),
     (tcl_sym_expr_cmd, tcl_rule_expr_cmd),
     (tcl_sym_foreach, tcl_rule_foreach),
     (tcl_sym_global, tcl_rule_global),
     (tcl_sym_namespace, tcl_rule_namespace),
     (tcl_sym_try, tcl_rule_try),
     (tcl_sym_finally, tcl_rule_finally),
     (tcl_sym__command, tcl_rule_hidden_command),
     (tcl_sym_command, tcl_rule_command),
     (tcl_sym_word_list, tcl_rule_word_list),
     (tcl_sym__word_simple, tcl_rule_hidden_word_simple),
     (tcl_sym__concat_word, tcl_rule_hidden_concat_word),
     (tcl_sym__ns_delim, tcl_rule_hidden_ns_delim),
     (tcl_sym__id_immediate, tcl_rule_hidden_id_immediate),
     (tcl_sym_id, tcl_rule_id),
     (tcl_sym_array_index, tcl_rule_array_index),
     (tcl_sym_variable_substitution, tcl_rule_variable_substitution),
     (tcl_sym_braced_word, tcl_rule_braced_word),
     (tcl_sym_braced_word_simple, tcl_rule_braced_word_simple),
     (tcl_sym_set, tcl_rule_set),
     (tcl_sym_procedure, tcl_rule_procedure),
     (tcl_sym__argument_word, tcl_rule_hidden_argument_word),
     (tcl_sym_argument, tcl_rule_argument),
     (tcl_sym_arguments, tcl_rule_arguments),
     (tcl_sym__expr_atom_no_brace, tcl_rule_hidden_expr_atom_no_brace),
     (tcl_sym__expr, tcl_rule_hidden_expr),
     (tcl_sym_expr, tcl_rule_expr),
     (tcl_sym_unary_expr, tcl_rule_unary_expr),
     (tcl_sym_binop_expr, tcl_rule_binop_expr),
     (tcl_sym_ternary_expr, tcl_rule_ternary_expr),
     (tcl_sym_elseif, tcl_rule_elseif),
     (tcl_sym_else, tcl_rule_else),
     (tcl_sym_if, tcl_rule_if),
     (tcl_sym__conditional, tcl_rule_hidden_conditional),
     (tcl_sym_catch, tcl_rule_catch),
     (tcl_sym_quoted_word, tcl_rule_quoted_word),
     (tcl_sym_command_substitution, tcl_rule_command_substitution)]"

definition tcl_grammar :: cfg where
  "tcl_grammar = productions tcl_rules"

section \<open>Its productions, as rewrite rules\<close>

lemmas tcl_inline_defs = tcl_rule_terminator_def tcl_rule_word_def tcl_rule_builtin_def

lemma tcl_rules_members:
  "(tcl_sym_source_file, tcl_rule_source_file) \<in> set tcl_rules"
  "(tcl_sym_regexp, tcl_rule_regexp) \<in> set tcl_rules"
  "(tcl_sym_while, tcl_rule_while) \<in> set tcl_rules"
  "(tcl_sym_expr_cmd, tcl_rule_expr_cmd) \<in> set tcl_rules"
  "(tcl_sym_foreach, tcl_rule_foreach) \<in> set tcl_rules"
  "(tcl_sym_global, tcl_rule_global) \<in> set tcl_rules"
  "(tcl_sym_namespace, tcl_rule_namespace) \<in> set tcl_rules"
  "(tcl_sym_try, tcl_rule_try) \<in> set tcl_rules"
  "(tcl_sym_finally, tcl_rule_finally) \<in> set tcl_rules"
  "(tcl_sym__command, tcl_rule_hidden_command) \<in> set tcl_rules"
  "(tcl_sym_command, tcl_rule_command) \<in> set tcl_rules"
  "(tcl_sym_word_list, tcl_rule_word_list) \<in> set tcl_rules"
  "(tcl_sym__word_simple, tcl_rule_hidden_word_simple) \<in> set tcl_rules"
  "(tcl_sym__concat_word, tcl_rule_hidden_concat_word) \<in> set tcl_rules"
  "(tcl_sym__ns_delim, tcl_rule_hidden_ns_delim) \<in> set tcl_rules"
  "(tcl_sym__id_immediate, tcl_rule_hidden_id_immediate) \<in> set tcl_rules"
  "(tcl_sym_id, tcl_rule_id) \<in> set tcl_rules"
  "(tcl_sym_array_index, tcl_rule_array_index) \<in> set tcl_rules"
  "(tcl_sym_variable_substitution, tcl_rule_variable_substitution) \<in> set tcl_rules"
  "(tcl_sym_braced_word, tcl_rule_braced_word) \<in> set tcl_rules"
  "(tcl_sym_braced_word_simple, tcl_rule_braced_word_simple) \<in> set tcl_rules"
  "(tcl_sym_set, tcl_rule_set) \<in> set tcl_rules"
  "(tcl_sym_procedure, tcl_rule_procedure) \<in> set tcl_rules"
  "(tcl_sym__argument_word, tcl_rule_hidden_argument_word) \<in> set tcl_rules"
  "(tcl_sym_argument, tcl_rule_argument) \<in> set tcl_rules"
  "(tcl_sym_arguments, tcl_rule_arguments) \<in> set tcl_rules"
  "(tcl_sym__expr_atom_no_brace, tcl_rule_hidden_expr_atom_no_brace) \<in> set tcl_rules"
  "(tcl_sym__expr, tcl_rule_hidden_expr) \<in> set tcl_rules"
  "(tcl_sym_expr, tcl_rule_expr) \<in> set tcl_rules"
  "(tcl_sym_unary_expr, tcl_rule_unary_expr) \<in> set tcl_rules"
  "(tcl_sym_binop_expr, tcl_rule_binop_expr) \<in> set tcl_rules"
  "(tcl_sym_ternary_expr, tcl_rule_ternary_expr) \<in> set tcl_rules"
  "(tcl_sym_elseif, tcl_rule_elseif) \<in> set tcl_rules"
  "(tcl_sym_else, tcl_rule_else) \<in> set tcl_rules"
  "(tcl_sym_if, tcl_rule_if) \<in> set tcl_rules"
  "(tcl_sym__conditional, tcl_rule_hidden_conditional) \<in> set tcl_rules"
  "(tcl_sym_catch, tcl_rule_catch) \<in> set tcl_rules"
  "(tcl_sym_quoted_word, tcl_rule_quoted_word) \<in> set tcl_rules"
  "(tcl_sym_command_substitution, tcl_rule_command_substitution) \<in> set tcl_rules"
  by (simp_all add: tcl_rules_def)

lemmas tcl_rule_productions = tcl_rules_members [THEN rule_productions, folded tcl_grammar_def]

lemmas tcl_productions =
  tcl_rule_productions(1) [unfolded tcl_rule_source_file_def tcl_inline_defs, simplified]
  tcl_rule_productions(2) [unfolded tcl_rule_regexp_def tcl_inline_defs, simplified]
  tcl_rule_productions(3) [unfolded tcl_rule_while_def tcl_inline_defs, simplified]
  tcl_rule_productions(4) [unfolded tcl_rule_expr_cmd_def tcl_inline_defs, simplified]
  tcl_rule_productions(5) [unfolded tcl_rule_foreach_def tcl_inline_defs, simplified]
  tcl_rule_productions(6) [unfolded tcl_rule_global_def tcl_inline_defs, simplified]
  tcl_rule_productions(7) [unfolded tcl_rule_namespace_def tcl_inline_defs, simplified]
  tcl_rule_productions(8) [unfolded tcl_rule_try_def tcl_inline_defs, simplified]
  tcl_rule_productions(9) [unfolded tcl_rule_finally_def tcl_inline_defs, simplified]
  tcl_rule_productions(10) [unfolded tcl_rule_hidden_command_def tcl_inline_defs, simplified]
  tcl_rule_productions(11) [unfolded tcl_rule_command_def tcl_inline_defs, simplified]
  tcl_rule_productions(12) [unfolded tcl_rule_word_list_def tcl_inline_defs, simplified]
  tcl_rule_productions(13) [unfolded tcl_rule_hidden_word_simple_def tcl_inline_defs, simplified]
  tcl_rule_productions(14) [unfolded tcl_rule_hidden_concat_word_def tcl_inline_defs, simplified]
  tcl_rule_productions(15) [unfolded tcl_rule_hidden_ns_delim_def tcl_inline_defs, simplified]
  tcl_rule_productions(16) [unfolded tcl_rule_hidden_id_immediate_def tcl_inline_defs, simplified]
  tcl_rule_productions(17) [unfolded tcl_rule_id_def tcl_inline_defs, simplified]
  tcl_rule_productions(18) [unfolded tcl_rule_array_index_def tcl_inline_defs, simplified]
  tcl_rule_productions(19) [unfolded tcl_rule_variable_substitution_def tcl_inline_defs, simplified]
  tcl_rule_productions(20) [unfolded tcl_rule_braced_word_def tcl_inline_defs, simplified]
  tcl_rule_productions(21) [unfolded tcl_rule_braced_word_simple_def tcl_inline_defs, simplified]
  tcl_rule_productions(22) [unfolded tcl_rule_set_def tcl_inline_defs, simplified]
  tcl_rule_productions(23) [unfolded tcl_rule_procedure_def tcl_inline_defs, simplified]
  tcl_rule_productions(24) [unfolded tcl_rule_hidden_argument_word_def tcl_inline_defs, simplified]
  tcl_rule_productions(25) [unfolded tcl_rule_argument_def tcl_inline_defs, simplified]
  tcl_rule_productions(26) [unfolded tcl_rule_arguments_def tcl_inline_defs, simplified]
  tcl_rule_productions(27) [unfolded tcl_rule_hidden_expr_atom_no_brace_def tcl_inline_defs, simplified]
  tcl_rule_productions(28) [unfolded tcl_rule_hidden_expr_def tcl_inline_defs, simplified]
  tcl_rule_productions(29) [unfolded tcl_rule_expr_def tcl_inline_defs, simplified]
  tcl_rule_productions(30) [unfolded tcl_rule_unary_expr_def tcl_inline_defs, simplified]
  tcl_rule_productions(31) [unfolded tcl_rule_binop_expr_def tcl_inline_defs, simplified]
  tcl_rule_productions(32) [unfolded tcl_rule_ternary_expr_def tcl_inline_defs, simplified]
  tcl_rule_productions(33) [unfolded tcl_rule_elseif_def tcl_inline_defs, simplified]
  tcl_rule_productions(34) [unfolded tcl_rule_else_def tcl_inline_defs, simplified]
  tcl_rule_productions(35) [unfolded tcl_rule_if_def tcl_inline_defs, simplified]
  tcl_rule_productions(36) [unfolded tcl_rule_hidden_conditional_def tcl_inline_defs, simplified]
  tcl_rule_productions(37) [unfolded tcl_rule_catch_def tcl_inline_defs, simplified]
  tcl_rule_productions(38) [unfolded tcl_rule_quoted_word_def tcl_inline_defs, simplified]
  tcl_rule_productions(39) [unfolded tcl_rule_command_substitution_def tcl_inline_defs, simplified]

lemma tcl_unit_productions:
  "(69, [108]) \<in> set tcl_grammar"
  "(74, [9]) \<in> set tcl_grammar"
  "(78, [4]) \<in> set tcl_grammar"
  "(78, [70]) \<in> set tcl_grammar"
  "(78, [71]) \<in> set tcl_grammar"
  "(78, [72]) \<in> set tcl_grammar"
  "(78, [73]) \<in> set tcl_grammar"
  "(78, [74]) \<in> set tcl_grammar"
  "(78, [75]) \<in> set tcl_grammar"
  "(78, [76]) \<in> set tcl_grammar"
  "(78, [79]) \<in> set tcl_grammar"
  "(78, [90]) \<in> set tcl_grammar"
  "(78, [91]) \<in> set tcl_grammar"
  "(78, [104]) \<in> set tcl_grammar"
  "(78, [105]) \<in> set tcl_grammar"
  "(79, [82]) \<in> set tcl_grammar"
  "(79, [88]) \<in> set tcl_grammar"
  "(80, [110]) \<in> set tcl_grammar"
  "(81, [Suc 0]) \<in> set tcl_grammar"
  "(81, [63]) \<in> set tcl_grammar"
  "(81, [87]) \<in> set tcl_grammar"
  "(81, [89]) \<in> set tcl_grammar"
  "(81, [106]) \<in> set tcl_grammar"
  "(81, [107]) \<in> set tcl_grammar"
  "(82, [Suc 0]) \<in> set tcl_grammar"
  "(82, [63]) \<in> set tcl_grammar"
  "(82, [87]) \<in> set tcl_grammar"
  "(82, [106]) \<in> set tcl_grammar"
  "(82, [107]) \<in> set tcl_grammar"
  "(83, [16]) \<in> set tcl_grammar"
  "(84, [17]) \<in> set tcl_grammar"
  "(85, [18]) \<in> set tcl_grammar"
  "(92, [Suc 0]) \<in> set tcl_grammar"
  "(92, [88]) \<in> set tcl_grammar"
  "(92, [106]) \<in> set tcl_grammar"
  "(93, [Suc 0]) \<in> set tcl_grammar"
  "(94, [Suc 0]) \<in> set tcl_grammar"
  "(95, [28]) \<in> set tcl_grammar"
  "(95, [29]) \<in> set tcl_grammar"
  "(95, [87]) \<in> set tcl_grammar"
  "(95, [106]) \<in> set tcl_grammar"
  "(95, [107]) \<in> set tcl_grammar"
  "(96, [63]) \<in> set tcl_grammar"
  "(96, [89]) \<in> set tcl_grammar"
  "(96, [95]) \<in> set tcl_grammar"
  "(96, [98]) \<in> set tcl_grammar"
  "(96, [99]) \<in> set tcl_grammar"
  "(96, [100]) \<in> set tcl_grammar"
  "(97, [95]) \<in> set tcl_grammar"
  "(104, [101]) \<in> set tcl_grammar"
  "(104, [102]) \<in> set tcl_grammar"
  "(104, [103]) \<in> set tcl_grammar"
  "(108, [2]) \<in> set tcl_grammar"
  "(108, [3]) \<in> set tcl_grammar"
  "(109, [82]) \<in> set tcl_grammar"
  "(110, [82]) \<in> set tcl_grammar"
  "(110, [88]) \<in> set tcl_grammar"
  "(114, [2]) \<in> set tcl_grammar"
  "(114, [3]) \<in> set tcl_grammar"
  "(116, [81]) \<in> set tcl_grammar"
  "(117, [93]) \<in> set tcl_grammar"
  "(118, [101]) \<in> set tcl_grammar"
  "(119, [63]) \<in> set tcl_grammar"
  "(119, [64]) \<in> set tcl_grammar"
  "(119, [87]) \<in> set tcl_grammar"
  "(119, [107]) \<in> set tcl_grammar"
  by (simp_all add: tcl_productions)

lemmas tcl_unit_steps = tcl_unit_productions [THEN unit_step]

end
