(* ===== verification/Tcl_Certificate.thy ===== *)
theory Tcl_Certificate
  imports Tcl_Table Tcl_Grammar
begin

text \<open>
  The tables of the Tcl parser against its grammar: a certificate of soundness, the bounds of the
  entries, and the entries a reduction needs. The certificate is data that the checks of
  \<^theory_text>\<open>Lr_Tables\<close> evaluate on the tables piece by piece.
\<close>

section \<open>The certificate\<close>

text \<open>For each state, the states it is entered from and the symbols it is entered by.\<close>

definition tcl_incoming_0 :: incoming where
  "tcl_incoming_0 =
    [(2, [(2, tcl_aux_sym_source_file_repeat1), (5, tcl_aux_sym_source_file_repeat1)]),
     (3, [(509, tcl_aux_sym_braced_word_repeat1)]),
     (4, [(461, tcl_aux_sym_braced_word_repeat1)]),
     (5, [(1, tcl_aux_sym_source_file_repeat1)]),
     (6, [(468, tcl_aux_sym_braced_word_repeat1)]),
     (7, [(474, tcl_aux_sym_braced_word_repeat1)]),
     (8, [(481, tcl_aux_sym_braced_word_repeat1)]),
     (9, [(480, tcl_aux_sym_braced_word_repeat1)]),
     (10, [(488, tcl_aux_sym_braced_word_repeat1)]),
     (11, [(492, tcl_aux_sym_braced_word_repeat1)]),
     (12, [(485, tcl_aux_sym_braced_word_repeat1)]),
     (13, [(495, tcl_aux_sym_braced_word_repeat1)]),
     (14, [(466, tcl_aux_sym_braced_word_repeat1)]),
     (15, [(1, tcl_anon_sym_LBRACE), (2, tcl_anon_sym_LBRACE), (3, tcl_anon_sym_LBRACE), (4,
      tcl_anon_sym_LBRACE), (5, tcl_anon_sym_LBRACE), (6, tcl_anon_sym_LBRACE), (7,
      tcl_anon_sym_LBRACE), (8, tcl_anon_sym_LBRACE), (9, tcl_anon_sym_LBRACE), (10,
      tcl_anon_sym_LBRACE), (11, tcl_anon_sym_LBRACE), (12, tcl_anon_sym_LBRACE), (13,
      tcl_anon_sym_LBRACE), (14, tcl_anon_sym_LBRACE), (15, tcl_anon_sym_LBRACE), (16,
      tcl_anon_sym_LBRACE), (17, tcl_anon_sym_LBRACE), (18, tcl_anon_sym_LBRACE), (19,
      tcl_anon_sym_LBRACE), (96, tcl_anon_sym_LBRACE), (97, tcl_anon_sym_LBRACE), (98,
      tcl_anon_sym_LBRACE), (99, tcl_anon_sym_LBRACE), (109, tcl_anon_sym_LBRACE), (180,
      tcl_anon_sym_LBRACE), (220, tcl_anon_sym_LBRACE), (239, tcl_anon_sym_LBRACE), (251,
      tcl_anon_sym_LBRACE)]),
     (16, [(155, tcl_anon_sym_LBRACE), (167, tcl_anon_sym_LBRACE), (169, tcl_anon_sym_LBRACE),
      (170, tcl_anon_sym_LBRACE), (173, tcl_anon_sym_LBRACE), (174, tcl_anon_sym_LBRACE), (175,
      tcl_anon_sym_LBRACE), (177, tcl_anon_sym_LBRACE), (179, tcl_anon_sym_LBRACE), (187,
      tcl_anon_sym_LBRACE), (192, tcl_anon_sym_LBRACE), (207, tcl_anon_sym_LBRACE), (210,
      tcl_anon_sym_LBRACE), (212, tcl_anon_sym_LBRACE), (218, tcl_anon_sym_LBRACE), (219,
      tcl_anon_sym_LBRACE), (221, tcl_anon_sym_LBRACE), (223, tcl_anon_sym_LBRACE), (224,
      tcl_anon_sym_LBRACE), (229, tcl_anon_sym_LBRACE), (257, tcl_anon_sym_LBRACE), (281,
      tcl_anon_sym_LBRACE)]),
     (17, [(146, tcl_anon_sym_LBRACE), (149, tcl_anon_sym_LBRACE), (152, tcl_anon_sym_LBRACE),
      (153, tcl_anon_sym_LBRACE), (157, tcl_anon_sym_LBRACE), (158, tcl_anon_sym_LBRACE), (160,
      tcl_anon_sym_LBRACE), (193, tcl_anon_sym_LBRACE), (195, tcl_anon_sym_LBRACE), (203,
      tcl_anon_sym_LBRACE), (209, tcl_anon_sym_LBRACE), (234, tcl_anon_sym_LBRACE), (238,
      tcl_anon_sym_LBRACE), (241, tcl_anon_sym_LBRACE), (243, tcl_anon_sym_LBRACE), (244,
      tcl_anon_sym_LBRACE), (245, tcl_anon_sym_LBRACE), (247, tcl_anon_sym_LBRACE), (401,
      tcl_anon_sym_LBRACE)]),
     (18, [(147, tcl_anon_sym_LBRACE), (154, tcl_anon_sym_LBRACE), (164, tcl_anon_sym_LBRACE),
      (165, tcl_anon_sym_LBRACE), (168, tcl_anon_sym_LBRACE), (233, tcl_anon_sym_LBRACE), (249,
      tcl_anon_sym_LBRACE), (250, tcl_anon_sym_LBRACE), (255, tcl_anon_sym_LBRACE), (282,
      tcl_anon_sym_LBRACE)]),
     (19, [(20, tcl_anon_sym_LBRACE), (21, tcl_anon_sym_LBRACE), (22, tcl_anon_sym_LBRACE), (23,
      tcl_anon_sym_LBRACE), (24, tcl_anon_sym_LBRACE), (25, tcl_anon_sym_LBRACE), (26,
      tcl_anon_sym_LBRACE), (27, tcl_anon_sym_LBRACE), (28, tcl_anon_sym_LBRACE), (29,
      tcl_anon_sym_LBRACE), (102, tcl_anon_sym_LBRACE), (105, tcl_anon_sym_LBRACE), (111,
      tcl_anon_sym_LBRACE), (112, tcl_anon_sym_LBRACE), (115, tcl_anon_sym_LBRACE), (150,
      tcl_anon_sym_LBRACE), (228, tcl_anon_sym_LBRACE), (231, tcl_anon_sym_LBRACE), (240,
      tcl_anon_sym_LBRACE)]),
     (20, [(73, tcl_anon_sym_LBRACK), (74, tcl_anon_sym_LBRACK), (75, tcl_anon_sym_LBRACK), (76,
      tcl_anon_sym_LBRACK), (77, tcl_anon_sym_LBRACK), (78, tcl_anon_sym_LBRACK), (79,
      tcl_anon_sym_LBRACK), (80, tcl_anon_sym_LBRACK), (81, tcl_anon_sym_LBRACK), (82,
      tcl_anon_sym_LBRACK), (83, tcl_anon_sym_LBRACK), (84, tcl_anon_sym_LBRACK), (85,
      tcl_anon_sym_LBRACK), (86, tcl_anon_sym_LBRACK), (87, tcl_anon_sym_LBRACK), (88,
      tcl_anon_sym_LBRACK), (89, tcl_anon_sym_LBRACK), (90, tcl_anon_sym_LBRACK), (91,
      tcl_anon_sym_LBRACK), (92, tcl_anon_sym_LBRACK), (93, tcl_anon_sym_LBRACK), (94,
      tcl_anon_sym_LBRACK), (95, tcl_anon_sym_LBRACK), (199, tcl_anon_sym_LBRACK)]),
     (21, [(147, tcl_anon_sym_LBRACK), (154, tcl_anon_sym_LBRACK), (164, tcl_anon_sym_LBRACK),
      (165, tcl_anon_sym_LBRACK), (168, tcl_anon_sym_LBRACK), (233, tcl_anon_sym_LBRACK), (249,
      tcl_anon_sym_LBRACK), (250, tcl_anon_sym_LBRACK), (255, tcl_anon_sym_LBRACK), (282,
      tcl_anon_sym_LBRACK), (348, tcl_anon_sym_LBRACK)]),
     (22, [(1, tcl_anon_sym_LBRACK), (2, tcl_anon_sym_LBRACK), (3, tcl_anon_sym_LBRACK), (4,
      tcl_anon_sym_LBRACK), (5, tcl_anon_sym_LBRACK), (6, tcl_anon_sym_LBRACK), (7,
      tcl_anon_sym_LBRACK), (8, tcl_anon_sym_LBRACK), (9, tcl_anon_sym_LBRACK), (10,
      tcl_anon_sym_LBRACK), (11, tcl_anon_sym_LBRACK), (12, tcl_anon_sym_LBRACK), (13,
      tcl_anon_sym_LBRACK), (14, tcl_anon_sym_LBRACK), (15, tcl_anon_sym_LBRACK), (16,
      tcl_anon_sym_LBRACK), (17, tcl_anon_sym_LBRACK), (18, tcl_anon_sym_LBRACK), (19,
      tcl_anon_sym_LBRACK), (96, tcl_anon_sym_LBRACK), (97, tcl_anon_sym_LBRACK), (98,
      tcl_anon_sym_LBRACK), (99, tcl_anon_sym_LBRACK), (109, tcl_anon_sym_LBRACK), (119,
      tcl_anon_sym_LBRACK), (121, tcl_anon_sym_LBRACK), (129, tcl_anon_sym_LBRACK), (138,
      tcl_anon_sym_LBRACK), (141, tcl_anon_sym_LBRACK), (180, tcl_anon_sym_LBRACK), (220,
      tcl_anon_sym_LBRACK), (239, tcl_anon_sym_LBRACK), (251, tcl_anon_sym_LBRACK), (334,
      tcl_anon_sym_LBRACK), (389, tcl_anon_sym_LBRACK)]),
     (23, [(20, tcl_anon_sym_LBRACK), (21, tcl_anon_sym_LBRACK), (22, tcl_anon_sym_LBRACK), (23,
      tcl_anon_sym_LBRACK), (24, tcl_anon_sym_LBRACK), (25, tcl_anon_sym_LBRACK), (26,
      tcl_anon_sym_LBRACK), (27, tcl_anon_sym_LBRACK), (28, tcl_anon_sym_LBRACK), (29,
      tcl_anon_sym_LBRACK), (102, tcl_anon_sym_LBRACK), (105, tcl_anon_sym_LBRACK), (111,
      tcl_anon_sym_LBRACK), (112, tcl_anon_sym_LBRACK), (115, tcl_anon_sym_LBRACK), (150,
      tcl_anon_sym_LBRACK), (202, tcl_anon_sym_LBRACK), (225, tcl_anon_sym_LBRACK), (226,
      tcl_anon_sym_LBRACK), (228, tcl_anon_sym_LBRACK), (230, tcl_anon_sym_LBRACK), (231,
      tcl_anon_sym_LBRACK), (240, tcl_anon_sym_LBRACK), (242, tcl_anon_sym_LBRACK), (246,
      tcl_anon_sym_LBRACK), (248, tcl_anon_sym_LBRACK), (258, tcl_anon_sym_LBRACK), (262,
      tcl_anon_sym_LBRACK), (287, tcl_anon_sym_LBRACK), (294, tcl_anon_sym_LBRACK), (319,
      tcl_anon_sym_LBRACK), (394, tcl_anon_sym_LBRACK)]),
     (24, [(172, tcl_anon_sym_LBRACK)]),
     (25, [(100, tcl_anon_sym_LBRACK), (113, tcl_anon_sym_LBRACK), (114, tcl_anon_sym_LBRACK),
      (148, tcl_anon_sym_LBRACK), (155, tcl_anon_sym_LBRACK), (167, tcl_anon_sym_LBRACK), (169,
      tcl_anon_sym_LBRACK), (170, tcl_anon_sym_LBRACK), (173, tcl_anon_sym_LBRACK), (174,
      tcl_anon_sym_LBRACK), (175, tcl_anon_sym_LBRACK), (177, tcl_anon_sym_LBRACK), (178,
      tcl_anon_sym_LBRACK), (179, tcl_anon_sym_LBRACK), (187, tcl_anon_sym_LBRACK), (192,
      tcl_anon_sym_LBRACK), (207, tcl_anon_sym_LBRACK), (210, tcl_anon_sym_LBRACK), (212,
      tcl_anon_sym_LBRACK), (218, tcl_anon_sym_LBRACK), (219, tcl_anon_sym_LBRACK), (221,
      tcl_anon_sym_LBRACK), (223, tcl_anon_sym_LBRACK), (224, tcl_anon_sym_LBRACK), (229,
      tcl_anon_sym_LBRACK), (257, tcl_anon_sym_LBRACK), (281, tcl_anon_sym_LBRACK), (295,
      tcl_anon_sym_LBRACK), (342, tcl_anon_sym_LBRACK)]),
     (26, [(156, tcl_anon_sym_LBRACK), (163, tcl_anon_sym_LBRACK), (176, tcl_anon_sym_LBRACK),
      (184, tcl_anon_sym_LBRACK), (185, tcl_anon_sym_LBRACK), (186, tcl_anon_sym_LBRACK), (190,
      tcl_anon_sym_LBRACK)]),
     (27, [(110, tcl_anon_sym_LBRACK), (146, tcl_anon_sym_LBRACK), (149, tcl_anon_sym_LBRACK),
      (152, tcl_anon_sym_LBRACK), (153, tcl_anon_sym_LBRACK), (157, tcl_anon_sym_LBRACK), (158,
      tcl_anon_sym_LBRACK), (160, tcl_anon_sym_LBRACK), (193, tcl_anon_sym_LBRACK), (195,
      tcl_anon_sym_LBRACK), (196, tcl_anon_sym_LBRACK), (200, tcl_anon_sym_LBRACK), (203,
      tcl_anon_sym_LBRACK), (206, tcl_anon_sym_LBRACK), (209, tcl_anon_sym_LBRACK), (234,
      tcl_anon_sym_LBRACK), (238, tcl_anon_sym_LBRACK), (241, tcl_anon_sym_LBRACK), (243,
      tcl_anon_sym_LBRACK), (244, tcl_anon_sym_LBRACK), (245, tcl_anon_sym_LBRACK), (247,
      tcl_anon_sym_LBRACK), (263, tcl_anon_sym_LBRACK), (266, tcl_anon_sym_LBRACK), (268,
      tcl_anon_sym_LBRACK), (270, tcl_anon_sym_LBRACK), (272, tcl_anon_sym_LBRACK), (274,
      tcl_anon_sym_LBRACK), (275, tcl_anon_sym_LBRACK), (277, tcl_anon_sym_LBRACK), (278,
      tcl_anon_sym_LBRACK), (279, tcl_anon_sym_LBRACK), (280, tcl_anon_sym_LBRACK), (289,
      tcl_anon_sym_LBRACK), (297, tcl_anon_sym_LBRACK), (306, tcl_anon_sym_LBRACK), (371,
      tcl_anon_sym_LBRACK), (375, tcl_anon_sym_LBRACK)]),
     (28, [(341, tcl_anon_sym_LBRACK), (345, tcl_anon_sym_LBRACK), (347, tcl_anon_sym_LBRACK),
      (352, tcl_anon_sym_LBRACK), (353, tcl_anon_sym_LBRACK), (354, tcl_anon_sym_LBRACK), (355,
      tcl_anon_sym_LBRACK), (356, tcl_anon_sym_LBRACK), (357, tcl_anon_sym_LBRACK), (358,
      tcl_anon_sym_LBRACK), (359, tcl_anon_sym_LBRACK), (370, tcl_anon_sym_LBRACK), (373,
      tcl_anon_sym_LBRACK), (376, tcl_anon_sym_LBRACK), (385, tcl_anon_sym_LBRACK), (390,
      tcl_anon_sym_LBRACK), (393, tcl_anon_sym_LBRACK), (395, tcl_anon_sym_LBRACK), (396,
      tcl_anon_sym_LBRACK)]),
     (29, [(125, tcl_anon_sym_LBRACK), (126, tcl_anon_sym_LBRACK), (128, tcl_anon_sym_LBRACK),
      (130, tcl_anon_sym_LBRACK), (131, tcl_anon_sym_LBRACK), (134, tcl_anon_sym_LBRACK), (135,
      tcl_anon_sym_LBRACK), (136, tcl_anon_sym_LBRACK), (137, tcl_anon_sym_LBRACK), (140,
      tcl_anon_sym_LBRACK), (143, tcl_anon_sym_LBRACK), (301, tcl_anon_sym_LBRACK)]),
     (30, [(34, tcl_aux_sym__id_immediate_repeat1)]),
     (31, [(30, tcl_aux_sym__id_immediate_repeat1), (31, tcl_aux_sym__id_immediate_repeat1), (33,
      tcl_aux_sym__id_immediate_repeat1)]),
     (32, [(501, tcl_sym__ident_imm)]),
     (33, [(32, tcl_aux_sym__id_immediate_repeat1)]),
     (34, [(637, tcl_sym__ident_imm)]),
     (35, [(650, tcl_sym__ident_imm)]),
     (36, [(501, tcl_sym__id_immediate)]),
     (37, [(641, tcl_anon_sym_RBRACE)]),
     (38, [(653, tcl_anon_sym_RPAREN)]),
     (39, [(65, tcl_anon_sym_RPAREN)]),
     (40, [(37, tcl_sym_array_index)]),
     (41, [(356, tcl_anon_sym_DQUOTE)]),
     (42, [(357, tcl_anon_sym_DQUOTE)]),
     (43, [(36, tcl_sym_array_index)]),
     (44, [(639, tcl_anon_sym_RBRACK)]),
     (45, [(95, tcl_sym__expr)]),
     (46, [(79, tcl_sym__expr)]),
     (47, [(81, tcl_sym__expr)]),
     (48, [(80, tcl_sym__expr)]),
     (49, [(82, tcl_sym__expr)]),
     (50, [(83, tcl_sym__expr)]),
     (51, [(84, tcl_sym__expr)]),
     (52, [(85, tcl_sym__expr)]),
     (53, [(86, tcl_sym__expr)]),
     (54, [(87, tcl_sym__expr)]),
     (55, [(88, tcl_sym__expr)]),
     (56, [(89, tcl_sym__expr)]),
     (57, [(90, tcl_sym__expr)]),
     (58, [(125, tcl_anon_sym_RBRACE)]),
     (59, [(126, tcl_anon_sym_RBRACE)]),
     (60, [(75, tcl_sym__expr)]),
     (61, [(64, tcl_anon_sym_RPAREN)])]"

definition tcl_incoming_1 :: incoming where
  "tcl_incoming_1 =
    [(62, [(76, tcl_sym__expr)]),
     (63, [(91, tcl_sym__expr)]),
     (64, [(74, tcl_sym__expr)]),
     (65, [(94, tcl_sym__expr)]),
     (66, [(92, tcl_sym__expr)]),
     (67, [(73, tcl_sym__expr)]),
     (68, [(78, tcl_sym__expr)]),
     (69, [(77, tcl_sym__expr)]),
     (70, [(3, tcl_aux_sym_braced_word_repeat1), (4, tcl_aux_sym_braced_word_repeat1), (6,
      tcl_aux_sym_braced_word_repeat1), (7, tcl_aux_sym_braced_word_repeat1), (8,
      tcl_aux_sym_braced_word_repeat1), (9, tcl_aux_sym_braced_word_repeat1), (10,
      tcl_aux_sym_braced_word_repeat1), (11, tcl_aux_sym_braced_word_repeat1), (12,
      tcl_aux_sym_braced_word_repeat1), (13, tcl_aux_sym_braced_word_repeat1), (14,
      tcl_aux_sym_braced_word_repeat1), (70, tcl_aux_sym_braced_word_repeat1)]),
     (71, [(93, tcl_sym__expr)]),
     (72, [(602, tcl_anon_sym_LF), (602, tcl_anon_sym_SEMI)]),
     (73, [(704, tcl_anon_sym_LPAREN2)]),
     (74, [(73, tcl_anon_sym_LPAREN2), (74, tcl_anon_sym_LPAREN2), (75, tcl_anon_sym_LPAREN2),
      (76, tcl_anon_sym_LPAREN2), (77, tcl_anon_sym_LPAREN2), (78, tcl_anon_sym_LPAREN2), (79,
      tcl_anon_sym_LPAREN2), (80, tcl_anon_sym_LPAREN2), (81, tcl_anon_sym_LPAREN2), (82,
      tcl_anon_sym_LPAREN2), (83, tcl_anon_sym_LPAREN2), (84, tcl_anon_sym_LPAREN2), (85,
      tcl_anon_sym_LPAREN2), (86, tcl_anon_sym_LPAREN2), (87, tcl_anon_sym_LPAREN2), (88,
      tcl_anon_sym_LPAREN2), (89, tcl_anon_sym_LPAREN2), (90, tcl_anon_sym_LPAREN2), (91,
      tcl_anon_sym_LPAREN2), (92, tcl_anon_sym_LPAREN2), (93, tcl_anon_sym_LPAREN2), (94,
      tcl_anon_sym_LPAREN2), (95, tcl_anon_sym_LPAREN2)]),
     (75, [(73, tcl_anon_sym_DASH), (73, tcl_anon_sym_PLUS), (73, tcl_anon_sym_TILDE), (73,
      tcl_anon_sym_BANG), (74, tcl_anon_sym_DASH), (74, tcl_anon_sym_PLUS), (74,
      tcl_anon_sym_TILDE), (74, tcl_anon_sym_BANG), (75, tcl_anon_sym_DASH), (75,
      tcl_anon_sym_PLUS), (75, tcl_anon_sym_TILDE), (75, tcl_anon_sym_BANG), (76,
      tcl_anon_sym_DASH), (76, tcl_anon_sym_PLUS), (76, tcl_anon_sym_TILDE), (76,
      tcl_anon_sym_BANG), (77, tcl_anon_sym_DASH), (77, tcl_anon_sym_PLUS), (77,
      tcl_anon_sym_TILDE), (77, tcl_anon_sym_BANG), (78, tcl_anon_sym_DASH), (78,
      tcl_anon_sym_PLUS), (78, tcl_anon_sym_TILDE), (78, tcl_anon_sym_BANG), (79,
      tcl_anon_sym_DASH), (79, tcl_anon_sym_PLUS), (79, tcl_anon_sym_TILDE), (79,
      tcl_anon_sym_BANG), (80, tcl_anon_sym_DASH), (80, tcl_anon_sym_PLUS), (80,
      tcl_anon_sym_TILDE), (80, tcl_anon_sym_BANG), (81, tcl_anon_sym_DASH), (81,
      tcl_anon_sym_PLUS), (81, tcl_anon_sym_TILDE), (81, tcl_anon_sym_BANG), (82,
      tcl_anon_sym_DASH), (82, tcl_anon_sym_PLUS), (82, tcl_anon_sym_TILDE), (82,
      tcl_anon_sym_BANG), (83, tcl_anon_sym_DASH), (83, tcl_anon_sym_PLUS), (83,
      tcl_anon_sym_TILDE), (83, tcl_anon_sym_BANG), (84, tcl_anon_sym_DASH), (84,
      tcl_anon_sym_PLUS), (84, tcl_anon_sym_TILDE), (84, tcl_anon_sym_BANG), (85,
      tcl_anon_sym_DASH), (85, tcl_anon_sym_PLUS), (85, tcl_anon_sym_TILDE), (85,
      tcl_anon_sym_BANG), (86, tcl_anon_sym_DASH), (86, tcl_anon_sym_PLUS), (86,
      tcl_anon_sym_TILDE), (86, tcl_anon_sym_BANG), (87, tcl_anon_sym_DASH), (87,
      tcl_anon_sym_PLUS), (87, tcl_anon_sym_TILDE), (87, tcl_anon_sym_BANG), (88,
      tcl_anon_sym_DASH), (88, tcl_anon_sym_PLUS), (88, tcl_anon_sym_TILDE), (88,
      tcl_anon_sym_BANG), (89, tcl_anon_sym_DASH), (89, tcl_anon_sym_PLUS), (89,
      tcl_anon_sym_TILDE), (89, tcl_anon_sym_BANG), (90, tcl_anon_sym_DASH), (90,
      tcl_anon_sym_PLUS), (90, tcl_anon_sym_TILDE), (90, tcl_anon_sym_BANG), (91,
      tcl_anon_sym_DASH), (91, tcl_anon_sym_PLUS), (91, tcl_anon_sym_TILDE), (91,
      tcl_anon_sym_BANG), (92, tcl_anon_sym_DASH), (92, tcl_anon_sym_PLUS), (92,
      tcl_anon_sym_TILDE), (92, tcl_anon_sym_BANG), (93, tcl_anon_sym_DASH), (93,
      tcl_anon_sym_PLUS), (93, tcl_anon_sym_TILDE), (93, tcl_anon_sym_BANG), (94,
      tcl_anon_sym_DASH), (94, tcl_anon_sym_PLUS), (94, tcl_anon_sym_TILDE), (94,
      tcl_anon_sym_BANG), (95, tcl_anon_sym_DASH), (95, tcl_anon_sym_PLUS), (95,
      tcl_anon_sym_TILDE), (95, tcl_anon_sym_BANG)]),
     (76, [(45, tcl_anon_sym_DASH), (45, tcl_anon_sym_PLUS), (48, tcl_anon_sym_DASH), (48,
      tcl_anon_sym_PLUS), (49, tcl_anon_sym_DASH), (49, tcl_anon_sym_PLUS), (50,
      tcl_anon_sym_DASH), (50, tcl_anon_sym_PLUS), (51, tcl_anon_sym_DASH), (51,
      tcl_anon_sym_PLUS), (52, tcl_anon_sym_DASH), (52, tcl_anon_sym_PLUS), (53,
      tcl_anon_sym_DASH), (53, tcl_anon_sym_PLUS), (54, tcl_anon_sym_DASH), (54,
      tcl_anon_sym_PLUS), (55, tcl_anon_sym_DASH), (55, tcl_anon_sym_PLUS), (56,
      tcl_anon_sym_DASH), (56, tcl_anon_sym_PLUS), (57, tcl_anon_sym_DASH), (57,
      tcl_anon_sym_PLUS), (63, tcl_anon_sym_DASH), (63, tcl_anon_sym_PLUS), (64,
      tcl_anon_sym_DASH), (64, tcl_anon_sym_PLUS), (65, tcl_anon_sym_DASH), (65,
      tcl_anon_sym_PLUS), (66, tcl_anon_sym_DASH), (66, tcl_anon_sym_PLUS), (67,
      tcl_anon_sym_DASH), (67, tcl_anon_sym_PLUS), (68, tcl_anon_sym_DASH), (68,
      tcl_anon_sym_PLUS), (69, tcl_anon_sym_DASH), (69, tcl_anon_sym_PLUS), (71,
      tcl_anon_sym_DASH), (71, tcl_anon_sym_PLUS)]),
     (77, [(665, tcl_anon_sym_LPAREN2)]),
     (78, [(156, tcl_anon_sym_LBRACE), (163, tcl_anon_sym_LBRACE), (176, tcl_anon_sym_LBRACE),
      (184, tcl_anon_sym_LBRACE), (185, tcl_anon_sym_LBRACE), (186, tcl_anon_sym_LBRACE), (190,
      tcl_anon_sym_LBRACE)]),
     (79, [(45, tcl_anon_sym_STAR_STAR), (47, tcl_anon_sym_STAR_STAR), (48,
      tcl_anon_sym_STAR_STAR), (49, tcl_anon_sym_STAR_STAR), (50, tcl_anon_sym_STAR_STAR), (51,
      tcl_anon_sym_STAR_STAR), (52, tcl_anon_sym_STAR_STAR), (53, tcl_anon_sym_STAR_STAR), (54,
      tcl_anon_sym_STAR_STAR), (55, tcl_anon_sym_STAR_STAR), (56, tcl_anon_sym_STAR_STAR), (57,
      tcl_anon_sym_STAR_STAR), (62, tcl_anon_sym_STAR_STAR), (63, tcl_anon_sym_STAR_STAR), (64,
      tcl_anon_sym_STAR_STAR), (65, tcl_anon_sym_STAR_STAR), (66, tcl_anon_sym_STAR_STAR), (67,
      tcl_anon_sym_STAR_STAR), (68, tcl_anon_sym_STAR_STAR), (69, tcl_anon_sym_STAR_STAR), (71,
      tcl_anon_sym_STAR_STAR)]),
     (80, [(45, tcl_anon_sym_LT_LT), (45, tcl_anon_sym_GT_GT), (49, tcl_anon_sym_LT_LT), (49,
      tcl_anon_sym_GT_GT), (50, tcl_anon_sym_LT_LT), (50, tcl_anon_sym_GT_GT), (51,
      tcl_anon_sym_LT_LT), (51, tcl_anon_sym_GT_GT), (52, tcl_anon_sym_LT_LT), (52,
      tcl_anon_sym_GT_GT), (53, tcl_anon_sym_LT_LT), (53, tcl_anon_sym_GT_GT), (54,
      tcl_anon_sym_LT_LT), (54, tcl_anon_sym_GT_GT), (55, tcl_anon_sym_LT_LT), (55,
      tcl_anon_sym_GT_GT), (56, tcl_anon_sym_LT_LT), (56, tcl_anon_sym_GT_GT), (57,
      tcl_anon_sym_LT_LT), (57, tcl_anon_sym_GT_GT), (63, tcl_anon_sym_LT_LT), (63,
      tcl_anon_sym_GT_GT), (64, tcl_anon_sym_LT_LT), (64, tcl_anon_sym_GT_GT), (65,
      tcl_anon_sym_LT_LT), (65, tcl_anon_sym_GT_GT), (66, tcl_anon_sym_LT_LT), (66,
      tcl_anon_sym_GT_GT), (67, tcl_anon_sym_LT_LT), (67, tcl_anon_sym_GT_GT), (68,
      tcl_anon_sym_LT_LT), (68, tcl_anon_sym_GT_GT), (69, tcl_anon_sym_LT_LT), (69,
      tcl_anon_sym_GT_GT), (71, tcl_anon_sym_LT_LT), (71, tcl_anon_sym_GT_GT)]),
     (81, [(45, tcl_anon_sym_SLASH), (45, tcl_anon_sym_STAR), (45, tcl_anon_sym_PERCENT), (48,
      tcl_anon_sym_SLASH), (48, tcl_anon_sym_STAR), (48, tcl_anon_sym_PERCENT), (49,
      tcl_anon_sym_SLASH), (49, tcl_anon_sym_STAR), (49, tcl_anon_sym_PERCENT), (50,
      tcl_anon_sym_SLASH), (50, tcl_anon_sym_STAR), (50, tcl_anon_sym_PERCENT), (51,
      tcl_anon_sym_SLASH), (51, tcl_anon_sym_STAR), (51, tcl_anon_sym_PERCENT), (52,
      tcl_anon_sym_SLASH), (52, tcl_anon_sym_STAR), (52, tcl_anon_sym_PERCENT), (53,
      tcl_anon_sym_SLASH), (53, tcl_anon_sym_STAR), (53, tcl_anon_sym_PERCENT), (54,
      tcl_anon_sym_SLASH), (54, tcl_anon_sym_STAR), (54, tcl_anon_sym_PERCENT), (55,
      tcl_anon_sym_SLASH), (55, tcl_anon_sym_STAR), (55, tcl_anon_sym_PERCENT), (56,
      tcl_anon_sym_SLASH), (56, tcl_anon_sym_STAR), (56, tcl_anon_sym_PERCENT), (57,
      tcl_anon_sym_SLASH), (57, tcl_anon_sym_STAR), (57, tcl_anon_sym_PERCENT), (62,
      tcl_anon_sym_SLASH), (62, tcl_anon_sym_STAR), (62, tcl_anon_sym_PERCENT), (63,
      tcl_anon_sym_SLASH), (63, tcl_anon_sym_STAR), (63, tcl_anon_sym_PERCENT), (64,
      tcl_anon_sym_SLASH), (64, tcl_anon_sym_STAR), (64, tcl_anon_sym_PERCENT), (65,
      tcl_anon_sym_SLASH), (65, tcl_anon_sym_STAR), (65, tcl_anon_sym_PERCENT), (66,
      tcl_anon_sym_SLASH), (66, tcl_anon_sym_STAR), (66, tcl_anon_sym_PERCENT), (67,
      tcl_anon_sym_SLASH), (67, tcl_anon_sym_STAR), (67, tcl_anon_sym_PERCENT), (68,
      tcl_anon_sym_SLASH), (68, tcl_anon_sym_STAR), (68, tcl_anon_sym_PERCENT), (69,
      tcl_anon_sym_SLASH), (69, tcl_anon_sym_STAR), (69, tcl_anon_sym_PERCENT), (71,
      tcl_anon_sym_SLASH), (71, tcl_anon_sym_STAR), (71, tcl_anon_sym_PERCENT)]),
     (82, [(45, tcl_anon_sym_GT), (45, tcl_anon_sym_LT), (45, tcl_anon_sym_GT_EQ), (45,
      tcl_anon_sym_LT_EQ), (50, tcl_anon_sym_GT), (50, tcl_anon_sym_LT), (50, tcl_anon_sym_GT_EQ),
      (50, tcl_anon_sym_LT_EQ), (51, tcl_anon_sym_GT), (51, tcl_anon_sym_LT), (51,
      tcl_anon_sym_GT_EQ), (51, tcl_anon_sym_LT_EQ), (52, tcl_anon_sym_GT), (52, tcl_anon_sym_LT),
      (52, tcl_anon_sym_GT_EQ), (52, tcl_anon_sym_LT_EQ), (53, tcl_anon_sym_GT), (53,
      tcl_anon_sym_LT), (53, tcl_anon_sym_GT_EQ), (53, tcl_anon_sym_LT_EQ), (54, tcl_anon_sym_GT),
      (54, tcl_anon_sym_LT), (54, tcl_anon_sym_GT_EQ), (54, tcl_anon_sym_LT_EQ), (55,
      tcl_anon_sym_GT), (55, tcl_anon_sym_LT), (55, tcl_anon_sym_GT_EQ), (55, tcl_anon_sym_LT_EQ),
      (56, tcl_anon_sym_GT), (56, tcl_anon_sym_LT), (56, tcl_anon_sym_GT_EQ), (56,
      tcl_anon_sym_LT_EQ), (57, tcl_anon_sym_GT), (57, tcl_anon_sym_LT), (57, tcl_anon_sym_GT_EQ),
      (57, tcl_anon_sym_LT_EQ), (63, tcl_anon_sym_GT), (63, tcl_anon_sym_LT), (63,
      tcl_anon_sym_GT_EQ), (63, tcl_anon_sym_LT_EQ), (64, tcl_anon_sym_GT), (64, tcl_anon_sym_LT),
      (64, tcl_anon_sym_GT_EQ), (64, tcl_anon_sym_LT_EQ), (65, tcl_anon_sym_GT), (65,
      tcl_anon_sym_LT), (65, tcl_anon_sym_GT_EQ), (65, tcl_anon_sym_LT_EQ), (66, tcl_anon_sym_GT),
      (66, tcl_anon_sym_LT), (66, tcl_anon_sym_GT_EQ), (66, tcl_anon_sym_LT_EQ), (67,
      tcl_anon_sym_GT), (67, tcl_anon_sym_LT), (67, tcl_anon_sym_GT_EQ), (67, tcl_anon_sym_LT_EQ),
      (68, tcl_anon_sym_GT), (68, tcl_anon_sym_LT), (68, tcl_anon_sym_GT_EQ), (68,
      tcl_anon_sym_LT_EQ), (69, tcl_anon_sym_GT), (69, tcl_anon_sym_LT), (69, tcl_anon_sym_GT_EQ),
      (69, tcl_anon_sym_LT_EQ), (71, tcl_anon_sym_GT), (71, tcl_anon_sym_LT), (71,
      tcl_anon_sym_GT_EQ), (71, tcl_anon_sym_LT_EQ)]),
     (83, [(45, tcl_anon_sym_EQ_EQ), (45, tcl_anon_sym_BANG_EQ), (51, tcl_anon_sym_EQ_EQ), (51,
      tcl_anon_sym_BANG_EQ), (52, tcl_anon_sym_EQ_EQ), (52, tcl_anon_sym_BANG_EQ), (53,
      tcl_anon_sym_EQ_EQ), (53, tcl_anon_sym_BANG_EQ), (54, tcl_anon_sym_EQ_EQ), (54,
      tcl_anon_sym_BANG_EQ), (55, tcl_anon_sym_EQ_EQ), (55, tcl_anon_sym_BANG_EQ), (56,
      tcl_anon_sym_EQ_EQ), (56, tcl_anon_sym_BANG_EQ), (57, tcl_anon_sym_EQ_EQ), (57,
      tcl_anon_sym_BANG_EQ), (63, tcl_anon_sym_EQ_EQ), (63, tcl_anon_sym_BANG_EQ), (64,
      tcl_anon_sym_EQ_EQ), (64, tcl_anon_sym_BANG_EQ), (65, tcl_anon_sym_EQ_EQ), (65,
      tcl_anon_sym_BANG_EQ), (66, tcl_anon_sym_EQ_EQ), (66, tcl_anon_sym_BANG_EQ), (67,
      tcl_anon_sym_EQ_EQ), (67, tcl_anon_sym_BANG_EQ), (68, tcl_anon_sym_EQ_EQ), (68,
      tcl_anon_sym_BANG_EQ), (69, tcl_anon_sym_EQ_EQ), (69, tcl_anon_sym_BANG_EQ), (71,
      tcl_anon_sym_EQ_EQ), (71, tcl_anon_sym_BANG_EQ)]),
     (84, [(45, tcl_anon_sym_eq), (45, tcl_anon_sym_ne), (52, tcl_anon_sym_eq), (52,
      tcl_anon_sym_ne), (53, tcl_anon_sym_eq), (53, tcl_anon_sym_ne), (54, tcl_anon_sym_eq), (54,
      tcl_anon_sym_ne), (55, tcl_anon_sym_eq), (55, tcl_anon_sym_ne), (56, tcl_anon_sym_eq), (56,
      tcl_anon_sym_ne), (57, tcl_anon_sym_eq), (57, tcl_anon_sym_ne), (63, tcl_anon_sym_eq), (63,
      tcl_anon_sym_ne), (64, tcl_anon_sym_eq), (64, tcl_anon_sym_ne), (65, tcl_anon_sym_eq), (65,
      tcl_anon_sym_ne), (66, tcl_anon_sym_eq), (66, tcl_anon_sym_ne), (67, tcl_anon_sym_eq), (67,
      tcl_anon_sym_ne), (68, tcl_anon_sym_eq), (68, tcl_anon_sym_ne), (69, tcl_anon_sym_eq), (69,
      tcl_anon_sym_ne), (71, tcl_anon_sym_eq), (71, tcl_anon_sym_ne)]),
     (85, [(45, tcl_anon_sym_in), (45, tcl_anon_sym_ni), (53, tcl_anon_sym_in), (53,
      tcl_anon_sym_ni), (54, tcl_anon_sym_in), (54, tcl_anon_sym_ni), (55, tcl_anon_sym_in), (55,
      tcl_anon_sym_ni), (56, tcl_anon_sym_in), (56, tcl_anon_sym_ni), (57, tcl_anon_sym_in), (57,
      tcl_anon_sym_ni), (63, tcl_anon_sym_in), (63, tcl_anon_sym_ni), (64, tcl_anon_sym_in), (64,
      tcl_anon_sym_ni), (65, tcl_anon_sym_in), (65, tcl_anon_sym_ni), (66, tcl_anon_sym_in), (66,
      tcl_anon_sym_ni), (67, tcl_anon_sym_in), (67, tcl_anon_sym_ni), (68, tcl_anon_sym_in), (68,
      tcl_anon_sym_ni), (69, tcl_anon_sym_in), (69, tcl_anon_sym_ni), (71, tcl_anon_sym_in), (71,
      tcl_anon_sym_ni)]),
     (86, [(45, tcl_anon_sym_AMP), (54, tcl_anon_sym_AMP), (55, tcl_anon_sym_AMP), (56,
      tcl_anon_sym_AMP), (57, tcl_anon_sym_AMP), (63, tcl_anon_sym_AMP), (64, tcl_anon_sym_AMP),
      (65, tcl_anon_sym_AMP), (66, tcl_anon_sym_AMP), (67, tcl_anon_sym_AMP), (68,
      tcl_anon_sym_AMP), (69, tcl_anon_sym_AMP), (71, tcl_anon_sym_AMP)]),
     (87, [(45, tcl_anon_sym_CARET), (55, tcl_anon_sym_CARET), (56, tcl_anon_sym_CARET), (57,
      tcl_anon_sym_CARET), (63, tcl_anon_sym_CARET), (64, tcl_anon_sym_CARET), (65,
      tcl_anon_sym_CARET), (66, tcl_anon_sym_CARET), (67, tcl_anon_sym_CARET), (68,
      tcl_anon_sym_CARET), (69, tcl_anon_sym_CARET), (71, tcl_anon_sym_CARET)]),
     (88, [(45, tcl_anon_sym_PIPE), (56, tcl_anon_sym_PIPE), (57, tcl_anon_sym_PIPE), (63,
      tcl_anon_sym_PIPE), (64, tcl_anon_sym_PIPE), (65, tcl_anon_sym_PIPE), (66,
      tcl_anon_sym_PIPE), (67, tcl_anon_sym_PIPE), (68, tcl_anon_sym_PIPE), (69,
      tcl_anon_sym_PIPE), (71, tcl_anon_sym_PIPE)]),
     (89, [(45, tcl_anon_sym_AMP_AMP), (57, tcl_anon_sym_AMP_AMP), (63, tcl_anon_sym_AMP_AMP),
      (64, tcl_anon_sym_AMP_AMP), (65, tcl_anon_sym_AMP_AMP), (66, tcl_anon_sym_AMP_AMP), (67,
      tcl_anon_sym_AMP_AMP), (68, tcl_anon_sym_AMP_AMP), (69, tcl_anon_sym_AMP_AMP), (71,
      tcl_anon_sym_AMP_AMP)]),
     (90, [(45, tcl_anon_sym_PIPE_PIPE), (63, tcl_anon_sym_PIPE_PIPE), (64,
      tcl_anon_sym_PIPE_PIPE), (65, tcl_anon_sym_PIPE_PIPE), (66, tcl_anon_sym_PIPE_PIPE), (67,
      tcl_anon_sym_PIPE_PIPE), (68, tcl_anon_sym_PIPE_PIPE), (69, tcl_anon_sym_PIPE_PIPE), (71,
      tcl_anon_sym_PIPE_PIPE)]),
     (91, [(63, tcl_anon_sym_QMARK), (64, tcl_anon_sym_QMARK), (65, tcl_anon_sym_QMARK), (66,
      tcl_anon_sym_QMARK), (67, tcl_anon_sym_QMARK), (68, tcl_anon_sym_QMARK), (69,
      tcl_anon_sym_QMARK), (71, tcl_anon_sym_QMARK)]),
     (92, [(172, tcl_anon_sym_LBRACE)]),
     (93, [(199, tcl_anon_sym_LBRACE)]),
     (94, [(715, tcl_anon_sym_LPAREN2)]),
     (95, [(63, tcl_anon_sym_COLON)]),
     (96, [(220, tcl_sym__concat_word), (220, tcl_sym_braced_word)]),
     (97, [(1, tcl_sym__concat_word), (1, tcl_sym_braced_word), (2, tcl_sym__concat_word), (2,
      tcl_sym_braced_word), (3, tcl_sym__concat_word), (3, tcl_sym_braced_word), (4,
      tcl_sym__concat_word), (4, tcl_sym_braced_word), (5, tcl_sym__concat_word), (5,
      tcl_sym_braced_word), (6, tcl_sym__concat_word), (6, tcl_sym_braced_word), (7,
      tcl_sym__concat_word), (7, tcl_sym_braced_word), (8, tcl_sym__concat_word), (8,
      tcl_sym_braced_word), (9, tcl_sym__concat_word), (9, tcl_sym_braced_word), (10,
      tcl_sym__concat_word), (10, tcl_sym_braced_word), (11, tcl_sym__concat_word), (11,
      tcl_sym_braced_word), (12, tcl_sym__concat_word), (12, tcl_sym_braced_word), (13,
      tcl_sym__concat_word), (13, tcl_sym_braced_word), (14, tcl_sym__concat_word), (14,
      tcl_sym_braced_word), (15, tcl_sym__concat_word), (15, tcl_sym_braced_word), (16,
      tcl_sym__concat_word), (16, tcl_sym_braced_word), (17, tcl_sym__concat_word), (17,
      tcl_sym_braced_word), (18, tcl_sym__concat_word), (18, tcl_sym_braced_word), (19,
      tcl_sym__concat_word), (19, tcl_sym_braced_word)]),
     (98, [(96, tcl_aux_sym_word_list_repeat1), (97, tcl_aux_sym_word_list_repeat1), (109,
      tcl_aux_sym_word_list_repeat1)]),
     (99, [(98, tcl_aux_sym_word_list_repeat1), (99, tcl_aux_sym_word_list_repeat1)]),
     (100, [(532, tcl_sym_id)]),
     (101, [(702, tcl_sym__ident_imm)]),
     (102, [(228, tcl_sym__concat_word), (228, tcl_sym_braced_word)]),
     (103, [(101, tcl_aux_sym__id_immediate_repeat1)]),
     (104, [(103, tcl_aux_sym__id_immediate_repeat1), (104, tcl_aux_sym__id_immediate_repeat1),
      (107, tcl_aux_sym__id_immediate_repeat1)]),
     (105, [(20, tcl_sym__concat_word), (20, tcl_sym_braced_word), (21, tcl_sym__concat_word),
      (21, tcl_sym_braced_word), (22, tcl_sym__concat_word), (22, tcl_sym_braced_word), (23,
      tcl_sym__concat_word), (23, tcl_sym_braced_word), (24, tcl_sym__concat_word), (24,
      tcl_sym_braced_word), (25, tcl_sym__concat_word), (25, tcl_sym_braced_word), (26,
      tcl_sym__concat_word), (26, tcl_sym_braced_word), (27, tcl_sym__concat_word), (27,
      tcl_sym_braced_word), (28, tcl_sym__concat_word), (28, tcl_sym_braced_word), (29,
      tcl_sym__concat_word), (29, tcl_sym_braced_word)]),
     (106, [(493, tcl_sym__ident_imm)]),
     (107, [(106, tcl_aux_sym__id_immediate_repeat1)]),
     (108, [(1, tcl_sym_simple_word), (2, tcl_sym_simple_word), (3, tcl_sym_simple_word), (4,
      tcl_sym_simple_word), (5, tcl_sym_simple_word), (6, tcl_sym_simple_word), (7,
      tcl_sym_simple_word), (8, tcl_sym_simple_word), (9, tcl_sym_simple_word), (10,
      tcl_sym_simple_word), (11, tcl_sym_simple_word), (12, tcl_sym_simple_word), (13,
      tcl_sym_simple_word), (14, tcl_sym_simple_word), (15, tcl_sym_simple_word), (16,
      tcl_sym_simple_word), (17, tcl_sym_simple_word), (18, tcl_sym_simple_word), (19,
      tcl_sym_simple_word), (96, tcl_sym_simple_word), (97, tcl_sym_simple_word), (98,
      tcl_sym_simple_word), (99, tcl_sym_simple_word), (109, tcl_sym_simple_word), (119,
      tcl_sym_simple_word), (121, tcl_sym_simple_word), (129, tcl_sym_simple_word), (138,
      tcl_sym_simple_word), (141, tcl_sym_simple_word), (180, tcl_sym_simple_word), (220,
      tcl_sym_simple_word), (239, tcl_sym_simple_word), (251, tcl_sym_simple_word), (334,
      tcl_sym_simple_word)]),
     (109, [(1, tcl_anon_sym_namespace), (2, tcl_anon_sym_namespace), (3, tcl_anon_sym_namespace),
      (4, tcl_anon_sym_namespace), (5, tcl_anon_sym_namespace), (6, tcl_anon_sym_namespace), (7,
      tcl_anon_sym_namespace), (8, tcl_anon_sym_namespace), (9, tcl_anon_sym_namespace), (10,
      tcl_anon_sym_namespace), (11, tcl_anon_sym_namespace), (12, tcl_anon_sym_namespace), (13,
      tcl_anon_sym_namespace), (14, tcl_anon_sym_namespace), (15, tcl_anon_sym_namespace), (16,
      tcl_anon_sym_namespace), (17, tcl_anon_sym_namespace), (18, tcl_anon_sym_namespace), (19,
      tcl_anon_sym_namespace)]),
     (110, [(520, tcl_sym_id)]),
     (111, [(102, tcl_aux_sym_word_list_repeat1), (105, tcl_aux_sym_word_list_repeat1), (115,
      tcl_aux_sym_word_list_repeat1)]),
     (112, [(111, tcl_aux_sym_word_list_repeat1), (112, tcl_aux_sym_word_list_repeat1)]),
     (113, [(709, tcl_anon_sym_RBRACE)]),
     (114, [(100, tcl_sym_array_index)]),
     (115, [(20, tcl_anon_sym_namespace), (21, tcl_anon_sym_namespace), (22,
      tcl_anon_sym_namespace), (23, tcl_anon_sym_namespace), (24, tcl_anon_sym_namespace), (25,
      tcl_anon_sym_namespace), (26, tcl_anon_sym_namespace), (27, tcl_anon_sym_namespace), (28,
      tcl_anon_sym_namespace), (29, tcl_anon_sym_namespace)]),
     (116, [(649, tcl_sym__ident_imm)]),
     (117, [(117, tcl_aux_sym__id_immediate_repeat1), (142, tcl_aux_sym__id_immediate_repeat1),
      (145, tcl_aux_sym__id_immediate_repeat1)]),
     (118, [(674, tcl_sym__ident_imm)]),
     (119, [(119, tcl_aux_sym_regexp_repeat1), (121, tcl_aux_sym_regexp_repeat1), (129,
      tcl_aux_sym_regexp_repeat1)]),
     (120, [(690, tcl_anon_sym_RBRACE)]),
     (121, [(138, tcl_aux_sym_regexp_repeat1)])]"

definition tcl_incoming_2 :: incoming where
  "tcl_incoming_2 =
    [(122, [(124, tcl_aux_sym__id_immediate_repeat1)]),
     (123, [(133, tcl_aux_sym__id_immediate_repeat1)]),
     (124, [(614, tcl_sym__ident_imm)]),
     (125, [(73, tcl_anon_sym_LBRACE), (74, tcl_anon_sym_LBRACE), (75, tcl_anon_sym_LBRACE), (76,
      tcl_anon_sym_LBRACE), (77, tcl_anon_sym_LBRACE), (78, tcl_anon_sym_LBRACE), (79,
      tcl_anon_sym_LBRACE), (80, tcl_anon_sym_LBRACE), (81, tcl_anon_sym_LBRACE), (82,
      tcl_anon_sym_LBRACE), (83, tcl_anon_sym_LBRACE), (84, tcl_anon_sym_LBRACE), (85,
      tcl_anon_sym_LBRACE), (86, tcl_anon_sym_LBRACE), (87, tcl_anon_sym_LBRACE), (88,
      tcl_anon_sym_LBRACE), (89, tcl_anon_sym_LBRACE), (90, tcl_anon_sym_LBRACE), (91,
      tcl_anon_sym_LBRACE), (92, tcl_anon_sym_LBRACE), (93, tcl_anon_sym_LBRACE), (94,
      tcl_anon_sym_LBRACE), (95, tcl_anon_sym_LBRACE)]),
     (126, [(125, tcl_aux_sym_braced_word_simple_repeat1)]),
     (127, [(389, tcl_sym_simple_word)]),
     (128, [(126, tcl_aux_sym_braced_word_simple_repeat1), (128,
      tcl_aux_sym_braced_word_simple_repeat1), (131, tcl_aux_sym_braced_word_simple_repeat1),
      (135, tcl_aux_sym_braced_word_simple_repeat1), (137,
      tcl_aux_sym_braced_word_simple_repeat1), (140, tcl_aux_sym_braced_word_simple_repeat1)]),
     (129, [(141, tcl_aux_sym_regexp_repeat1)]),
     (130, [(202, tcl_anon_sym_LBRACE), (262, tcl_anon_sym_LBRACE), (287, tcl_anon_sym_LBRACE)]),
     (131, [(130, tcl_aux_sym_braced_word_simple_repeat1)]),
     (132, [(493, tcl_sym__id_immediate)]),
     (133, [(532, tcl_sym__ident)]),
     (134, [(100, tcl_anon_sym_LBRACE), (113, tcl_anon_sym_LBRACE), (114, tcl_anon_sym_LBRACE),
      (295, tcl_anon_sym_LBRACE)]),
     (135, [(134, tcl_aux_sym_braced_word_simple_repeat1)]),
     (136, [(110, tcl_anon_sym_LBRACE), (196, tcl_anon_sym_LBRACE), (200, tcl_anon_sym_LBRACE),
      (206, tcl_anon_sym_LBRACE), (263, tcl_anon_sym_LBRACE), (266, tcl_anon_sym_LBRACE), (268,
      tcl_anon_sym_LBRACE), (270, tcl_anon_sym_LBRACE), (272, tcl_anon_sym_LBRACE), (274,
      tcl_anon_sym_LBRACE), (275, tcl_anon_sym_LBRACE), (277, tcl_anon_sym_LBRACE), (278,
      tcl_anon_sym_LBRACE), (279, tcl_anon_sym_LBRACE), (280, tcl_anon_sym_LBRACE), (297,
      tcl_anon_sym_LBRACE)]),
     (137, [(136, tcl_aux_sym_braced_word_simple_repeat1)]),
     (138, [(1, tcl_anon_sym_global), (2, tcl_anon_sym_global), (3, tcl_anon_sym_global), (4,
      tcl_anon_sym_global), (5, tcl_anon_sym_global), (6, tcl_anon_sym_global), (7,
      tcl_anon_sym_global), (8, tcl_anon_sym_global), (9, tcl_anon_sym_global), (10,
      tcl_anon_sym_global), (11, tcl_anon_sym_global), (12, tcl_anon_sym_global), (13,
      tcl_anon_sym_global), (14, tcl_anon_sym_global), (15, tcl_anon_sym_global), (16,
      tcl_anon_sym_global), (17, tcl_anon_sym_global), (18, tcl_anon_sym_global), (19,
      tcl_anon_sym_global)]),
     (139, [(465, tcl_sym__ident_imm)]),
     (140, [(143, tcl_aux_sym_braced_word_simple_repeat1)]),
     (141, [(334, tcl_sym__concat_word)]),
     (142, [(139, tcl_aux_sym__id_immediate_repeat1)]),
     (143, [(125, tcl_anon_sym_LBRACE), (126, tcl_anon_sym_LBRACE), (128, tcl_anon_sym_LBRACE),
      (130, tcl_anon_sym_LBRACE), (131, tcl_anon_sym_LBRACE), (134, tcl_anon_sym_LBRACE), (135,
      tcl_anon_sym_LBRACE), (136, tcl_anon_sym_LBRACE), (137, tcl_anon_sym_LBRACE), (140,
      tcl_anon_sym_LBRACE), (143, tcl_anon_sym_LBRACE), (225, tcl_anon_sym_LBRACE), (242,
      tcl_anon_sym_LBRACE), (294, tcl_anon_sym_LBRACE), (301, tcl_anon_sym_LBRACE)]),
     (144, [(122, tcl_aux_sym__id_immediate_repeat1), (123, tcl_aux_sym__id_immediate_repeat1),
      (144, tcl_aux_sym__id_immediate_repeat1)]),
     (145, [(116, tcl_aux_sym__id_immediate_repeat1)]),
     (146, [(574, tcl_sym_arguments)]),
     (147, [(20, tcl_anon_sym_try), (21, tcl_anon_sym_try), (22, tcl_anon_sym_try), (23,
      tcl_anon_sym_try), (24, tcl_anon_sym_try), (25, tcl_anon_sym_try), (26, tcl_anon_sym_try),
      (27, tcl_anon_sym_try), (28, tcl_anon_sym_try), (29, tcl_anon_sym_try)]),
     (148, [(239, tcl_sym__concat_word), (239, tcl_sym_braced_word)]),
     (149, [(20, tcl_anon_sym_else), (21, tcl_anon_sym_else), (22, tcl_anon_sym_else), (23,
      tcl_anon_sym_else), (24, tcl_anon_sym_else), (25, tcl_anon_sym_else), (26,
      tcl_anon_sym_else), (27, tcl_anon_sym_else), (28, tcl_anon_sym_else), (29,
      tcl_anon_sym_else), (449, tcl_anon_sym_else), (452, tcl_anon_sym_else), (453,
      tcl_anon_sym_else), (454, tcl_anon_sym_else)]),
     (150, [(20, tcl_anon_sym_catch), (21, tcl_anon_sym_catch), (22, tcl_anon_sym_catch), (23,
      tcl_anon_sym_catch), (24, tcl_anon_sym_catch), (25, tcl_anon_sym_catch), (26,
      tcl_anon_sym_catch), (27, tcl_anon_sym_catch), (28, tcl_anon_sym_catch), (29,
      tcl_anon_sym_catch)]),
     (151, [(151, tcl_aux_sym__id_immediate_repeat1), (191, tcl_aux_sym__id_immediate_repeat1),
      (201, tcl_aux_sym__id_immediate_repeat1)]),
     (152, [(184, tcl_sym_expr)]),
     (153, [(185, tcl_sym_expr)]),
     (154, [(186, tcl_sym_expr)]),
     (155, [(202, tcl_sym__word_simple)]),
     (156, [(1, tcl_anon_sym_elseif), (2, tcl_anon_sym_elseif), (3, tcl_anon_sym_elseif), (4,
      tcl_anon_sym_elseif), (5, tcl_anon_sym_elseif), (6, tcl_anon_sym_elseif), (7,
      tcl_anon_sym_elseif), (8, tcl_anon_sym_elseif), (9, tcl_anon_sym_elseif), (10,
      tcl_anon_sym_elseif), (11, tcl_anon_sym_elseif), (12, tcl_anon_sym_elseif), (13,
      tcl_anon_sym_elseif), (14, tcl_anon_sym_elseif), (15, tcl_anon_sym_elseif), (16,
      tcl_anon_sym_elseif), (17, tcl_anon_sym_elseif), (18, tcl_anon_sym_elseif), (19,
      tcl_anon_sym_elseif), (360, tcl_anon_sym_elseif), (362, tcl_anon_sym_elseif), (380,
      tcl_anon_sym_elseif), (383, tcl_anon_sym_elseif), (417, tcl_anon_sym_elseif)]),
     (157, [(262, tcl_sym__word_simple)]),
     (158, [(524, tcl_anon_sym_finally), (528, tcl_anon_sym_finally), (541, tcl_anon_sym_finally),
      (542, tcl_anon_sym_finally), (543, tcl_anon_sym_finally)]),
     (159, [(159, tcl_aux_sym__concat_word_repeat1), (161, tcl_aux_sym__concat_word_repeat1),
      (182, tcl_aux_sym__concat_word_repeat1)]),
     (160, [(572, tcl_sym_arguments)]),
     (161, [(183, tcl_aux_sym__concat_word_repeat1)]),
     (162, [(20, tcl_sym_simple_word), (21, tcl_sym_simple_word), (22, tcl_sym_simple_word), (23,
      tcl_sym_simple_word), (24, tcl_sym_simple_word), (25, tcl_sym_simple_word), (26,
      tcl_sym_simple_word), (27, tcl_sym_simple_word), (28, tcl_sym_simple_word), (29,
      tcl_sym_simple_word), (102, tcl_sym_simple_word), (105, tcl_sym_simple_word), (111,
      tcl_sym_simple_word), (112, tcl_sym_simple_word), (115, tcl_sym_simple_word), (150,
      tcl_sym_simple_word), (226, tcl_sym_simple_word), (228, tcl_sym_simple_word), (230,
      tcl_sym_simple_word), (231, tcl_sym_simple_word), (240, tcl_sym_simple_word), (246,
      tcl_sym_simple_word), (248, tcl_sym_simple_word), (258, tcl_sym_simple_word), (319,
      tcl_sym_simple_word)]),
     (163, [(1, tcl_anon_sym_while), (2, tcl_anon_sym_while), (3, tcl_anon_sym_while), (4,
      tcl_anon_sym_while), (5, tcl_anon_sym_while), (6, tcl_anon_sym_while), (7,
      tcl_anon_sym_while), (8, tcl_anon_sym_while), (9, tcl_anon_sym_while), (10,
      tcl_anon_sym_while), (11, tcl_anon_sym_while), (12, tcl_anon_sym_while), (13,
      tcl_anon_sym_while), (14, tcl_anon_sym_while), (15, tcl_anon_sym_while), (16,
      tcl_anon_sym_while), (17, tcl_anon_sym_while), (18, tcl_anon_sym_while), (19,
      tcl_anon_sym_while)]),
     (164, [(576, tcl_sym_arguments)]),
     (165, [(577, tcl_sym_arguments)]),
     (166, [(489, tcl_sym__ident_imm)]),
     (167, [(1, tcl_anon_sym_else), (2, tcl_anon_sym_else), (3, tcl_anon_sym_else), (4,
      tcl_anon_sym_else), (5, tcl_anon_sym_else), (6, tcl_anon_sym_else), (7, tcl_anon_sym_else),
      (8, tcl_anon_sym_else), (9, tcl_anon_sym_else), (10, tcl_anon_sym_else), (11,
      tcl_anon_sym_else), (12, tcl_anon_sym_else), (13, tcl_anon_sym_else), (14,
      tcl_anon_sym_else), (15, tcl_anon_sym_else), (16, tcl_anon_sym_else), (17,
      tcl_anon_sym_else), (18, tcl_anon_sym_else), (19, tcl_anon_sym_else), (360,
      tcl_anon_sym_else), (362, tcl_anon_sym_else), (380, tcl_anon_sym_else), (383,
      tcl_anon_sym_else)]),
     (168, [(190, tcl_sym_expr)]),
     (169, [(456, tcl_anon_sym_finally), (457, tcl_anon_sym_finally), (470, tcl_anon_sym_finally),
      (486, tcl_anon_sym_finally), (511, tcl_anon_sym_finally)]),
     (170, [(557, tcl_sym_arguments)]),
     (171, [(711, tcl_sym__ident_imm)]),
     (172, [(1, tcl_anon_sym_expr), (2, tcl_anon_sym_expr), (3, tcl_anon_sym_expr), (4,
      tcl_anon_sym_expr), (5, tcl_anon_sym_expr), (6, tcl_anon_sym_expr), (7, tcl_anon_sym_expr),
      (8, tcl_anon_sym_expr), (9, tcl_anon_sym_expr), (10, tcl_anon_sym_expr), (11,
      tcl_anon_sym_expr), (12, tcl_anon_sym_expr), (13, tcl_anon_sym_expr), (14,
      tcl_anon_sym_expr), (15, tcl_anon_sym_expr), (16, tcl_anon_sym_expr), (17,
      tcl_anon_sym_expr), (18, tcl_anon_sym_expr), (19, tcl_anon_sym_expr)]),
     (173, [(596, tcl_sym_arguments)]),
     (174, [(156, tcl_sym_expr)]),
     (175, [(559, tcl_sym_arguments)]),
     (176, [(1, tcl_anon_sym_if), (2, tcl_anon_sym_if), (3, tcl_anon_sym_if), (4,
      tcl_anon_sym_if), (5, tcl_anon_sym_if), (6, tcl_anon_sym_if), (7, tcl_anon_sym_if), (8,
      tcl_anon_sym_if), (9, tcl_anon_sym_if), (10, tcl_anon_sym_if), (11, tcl_anon_sym_if), (12,
      tcl_anon_sym_if), (13, tcl_anon_sym_if), (14, tcl_anon_sym_if), (15, tcl_anon_sym_if), (16,
      tcl_anon_sym_if), (17, tcl_anon_sym_if), (18, tcl_anon_sym_if), (19, tcl_anon_sym_if)]),
     (177, [(176, tcl_sym_expr)]),
     (178, [(180, tcl_sym__concat_word), (180, tcl_sym_braced_word)]),
     (179, [(601, tcl_sym_arguments)]),
     (180, [(1, tcl_anon_sym_catch), (2, tcl_anon_sym_catch), (3, tcl_anon_sym_catch), (4,
      tcl_anon_sym_catch), (5, tcl_anon_sym_catch), (6, tcl_anon_sym_catch), (7,
      tcl_anon_sym_catch), (8, tcl_anon_sym_catch), (9, tcl_anon_sym_catch), (10,
      tcl_anon_sym_catch), (11, tcl_anon_sym_catch), (12, tcl_anon_sym_catch), (13,
      tcl_anon_sym_catch), (14, tcl_anon_sym_catch), (15, tcl_anon_sym_catch), (16,
      tcl_anon_sym_catch), (17, tcl_anon_sym_catch), (18, tcl_anon_sym_catch), (19,
      tcl_anon_sym_catch)]),
     (181, [(500, tcl_sym__ident_imm)])]"

definition tcl_incoming_3 :: incoming where
  "tcl_incoming_3 =
    [(182, [(108, tcl_aux_sym__concat_word_repeat1), (198, tcl_aux_sym__concat_word_repeat1)]),
     (183, [(108, tcl_sym_array_index)]),
     (184, [(20, tcl_anon_sym_while), (21, tcl_anon_sym_while), (22, tcl_anon_sym_while), (23,
      tcl_anon_sym_while), (24, tcl_anon_sym_while), (25, tcl_anon_sym_while), (26,
      tcl_anon_sym_while), (27, tcl_anon_sym_while), (28, tcl_anon_sym_while), (29,
      tcl_anon_sym_while)]),
     (185, [(20, tcl_anon_sym_elseif), (21, tcl_anon_sym_elseif), (22, tcl_anon_sym_elseif), (23,
      tcl_anon_sym_elseif), (24, tcl_anon_sym_elseif), (25, tcl_anon_sym_elseif), (26,
      tcl_anon_sym_elseif), (27, tcl_anon_sym_elseif), (28, tcl_anon_sym_elseif), (29,
      tcl_anon_sym_elseif)]),
     (186, [(20, tcl_anon_sym_if), (21, tcl_anon_sym_if), (22, tcl_anon_sym_if), (23,
      tcl_anon_sym_if), (24, tcl_anon_sym_if), (25, tcl_anon_sym_if), (26, tcl_anon_sym_if), (27,
      tcl_anon_sym_if), (28, tcl_anon_sym_if), (29, tcl_anon_sym_if)]),
     (187, [(1, tcl_anon_sym_try), (2, tcl_anon_sym_try), (3, tcl_anon_sym_try), (4,
      tcl_anon_sym_try), (5, tcl_anon_sym_try), (6, tcl_anon_sym_try), (7, tcl_anon_sym_try), (8,
      tcl_anon_sym_try), (9, tcl_anon_sym_try), (10, tcl_anon_sym_try), (11, tcl_anon_sym_try),
      (12, tcl_anon_sym_try), (13, tcl_anon_sym_try), (14, tcl_anon_sym_try), (15,
      tcl_anon_sym_try), (16, tcl_anon_sym_try), (17, tcl_anon_sym_try), (18, tcl_anon_sym_try),
      (19, tcl_anon_sym_try)]),
     (188, [(181, tcl_aux_sym__id_immediate_repeat1)]),
     (189, [(629, tcl_sym__ident_imm)]),
     (190, [(449, tcl_anon_sym_elseif), (452, tcl_anon_sym_elseif), (453, tcl_anon_sym_elseif),
      (454, tcl_anon_sym_elseif), (479, tcl_anon_sym_elseif)]),
     (191, [(171, tcl_aux_sym__id_immediate_repeat1)]),
     (192, [(163, tcl_sym_expr)]),
     (193, [(1, tcl_anon_sym_proc), (2, tcl_anon_sym_proc), (3, tcl_anon_sym_proc), (4,
      tcl_anon_sym_proc), (5, tcl_anon_sym_proc), (6, tcl_anon_sym_proc), (7, tcl_anon_sym_proc),
      (8, tcl_anon_sym_proc), (9, tcl_anon_sym_proc), (10, tcl_anon_sym_proc), (11,
      tcl_anon_sym_proc), (12, tcl_anon_sym_proc), (13, tcl_anon_sym_proc), (14,
      tcl_anon_sym_proc), (15, tcl_anon_sym_proc), (16, tcl_anon_sym_proc), (17,
      tcl_anon_sym_proc), (18, tcl_anon_sym_proc), (19, tcl_anon_sym_proc)]),
     (194, [(189, tcl_aux_sym__id_immediate_repeat1)]),
     (195, [(20, tcl_anon_sym_proc), (21, tcl_anon_sym_proc), (22, tcl_anon_sym_proc), (23,
      tcl_anon_sym_proc), (24, tcl_anon_sym_proc), (25, tcl_anon_sym_proc), (26,
      tcl_anon_sym_proc), (27, tcl_anon_sym_proc), (28, tcl_anon_sym_proc), (29,
      tcl_anon_sym_proc)]),
     (196, [(110, tcl_sym_array_index)]),
     (197, [(188, tcl_aux_sym__id_immediate_repeat1), (194, tcl_aux_sym__id_immediate_repeat1),
      (197, tcl_aux_sym__id_immediate_repeat1)]),
     (198, [(1, tcl_sym_escaped_character), (1, tcl_sym_variable_substitution), (1,
      tcl_sym_quoted_word), (1, tcl_sym_command_substitution), (2, tcl_sym_escaped_character), (2,
      tcl_sym_variable_substitution), (2, tcl_sym_quoted_word), (2, tcl_sym_command_substitution),
      (3, tcl_sym_escaped_character), (3, tcl_sym_variable_substitution), (3,
      tcl_sym_quoted_word), (3, tcl_sym_command_substitution), (4, tcl_sym_escaped_character), (4,
      tcl_sym_variable_substitution), (4, tcl_sym_quoted_word), (4, tcl_sym_command_substitution),
      (5, tcl_sym_escaped_character), (5, tcl_sym_variable_substitution), (5,
      tcl_sym_quoted_word), (5, tcl_sym_command_substitution), (6, tcl_sym_escaped_character), (6,
      tcl_sym_variable_substitution), (6, tcl_sym_quoted_word), (6, tcl_sym_command_substitution),
      (7, tcl_sym_escaped_character), (7, tcl_sym_variable_substitution), (7,
      tcl_sym_quoted_word), (7, tcl_sym_command_substitution), (8, tcl_sym_escaped_character), (8,
      tcl_sym_variable_substitution), (8, tcl_sym_quoted_word), (8, tcl_sym_command_substitution),
      (9, tcl_sym_escaped_character), (9, tcl_sym_variable_substitution), (9,
      tcl_sym_quoted_word), (9, tcl_sym_command_substitution), (10, tcl_sym_escaped_character),
      (10, tcl_sym_variable_substitution), (10, tcl_sym_quoted_word), (10,
      tcl_sym_command_substitution), (11, tcl_sym_escaped_character), (11,
      tcl_sym_variable_substitution), (11, tcl_sym_quoted_word), (11,
      tcl_sym_command_substitution), (12, tcl_sym_escaped_character), (12,
      tcl_sym_variable_substitution), (12, tcl_sym_quoted_word), (12,
      tcl_sym_command_substitution), (13, tcl_sym_escaped_character), (13,
      tcl_sym_variable_substitution), (13, tcl_sym_quoted_word), (13,
      tcl_sym_command_substitution), (14, tcl_sym_escaped_character), (14,
      tcl_sym_variable_substitution), (14, tcl_sym_quoted_word), (14,
      tcl_sym_command_substitution), (15, tcl_sym_escaped_character), (15,
      tcl_sym_variable_substitution), (15, tcl_sym_quoted_word), (15,
      tcl_sym_command_substitution), (16, tcl_sym_escaped_character), (16,
      tcl_sym_variable_substitution), (16, tcl_sym_quoted_word), (16,
      tcl_sym_command_substitution), (17, tcl_sym_escaped_character), (17,
      tcl_sym_variable_substitution), (17, tcl_sym_quoted_word), (17,
      tcl_sym_command_substitution), (18, tcl_sym_escaped_character), (18,
      tcl_sym_variable_substitution), (18, tcl_sym_quoted_word), (18,
      tcl_sym_command_substitution), (19, tcl_sym_escaped_character), (19,
      tcl_sym_variable_substitution), (19, tcl_sym_quoted_word), (19,
      tcl_sym_command_substitution), (96, tcl_sym_escaped_character), (96,
      tcl_sym_variable_substitution), (96, tcl_sym_quoted_word), (96,
      tcl_sym_command_substitution), (97, tcl_sym_escaped_character), (97,
      tcl_sym_variable_substitution), (97, tcl_sym_quoted_word), (97,
      tcl_sym_command_substitution), (98, tcl_sym_escaped_character), (98,
      tcl_sym_variable_substitution), (98, tcl_sym_quoted_word), (98,
      tcl_sym_command_substitution), (99, tcl_sym_escaped_character), (99,
      tcl_sym_variable_substitution), (99, tcl_sym_quoted_word), (99,
      tcl_sym_command_substitution), (109, tcl_sym_escaped_character), (109,
      tcl_sym_variable_substitution), (109, tcl_sym_quoted_word), (109,
      tcl_sym_command_substitution), (119, tcl_sym_escaped_character), (119,
      tcl_sym_variable_substitution), (119, tcl_sym_quoted_word), (119,
      tcl_sym_command_substitution), (121, tcl_sym_escaped_character), (121,
      tcl_sym_variable_substitution), (121, tcl_sym_quoted_word), (121,
      tcl_sym_command_substitution), (129, tcl_sym_escaped_character), (129,
      tcl_sym_variable_substitution), (129, tcl_sym_quoted_word), (129,
      tcl_sym_command_substitution), (138, tcl_sym_escaped_character), (138,
      tcl_sym_variable_substitution), (138, tcl_sym_quoted_word), (138,
      tcl_sym_command_substitution), (141, tcl_sym_escaped_character), (141,
      tcl_sym_variable_substitution), (141, tcl_sym_quoted_word), (141,
      tcl_sym_command_substitution), (180, tcl_sym_escaped_character), (180,
      tcl_sym_variable_substitution), (180, tcl_sym_quoted_word), (180,
      tcl_sym_command_substitution), (220, tcl_sym_escaped_character), (220,
      tcl_sym_variable_substitution), (220, tcl_sym_quoted_word), (220,
      tcl_sym_command_substitution), (239, tcl_sym_escaped_character), (239,
      tcl_sym_variable_substitution), (239, tcl_sym_quoted_word), (239,
      tcl_sym_command_substitution), (251, tcl_sym_escaped_character), (251,
      tcl_sym_variable_substitution), (251, tcl_sym_quoted_word), (251,
      tcl_sym_command_substitution), (334, tcl_sym_escaped_character), (334,
      tcl_sym_variable_substitution), (334, tcl_sym_quoted_word), (334,
      tcl_sym_command_substitution)]),
     (199, [(20, tcl_anon_sym_expr), (21, tcl_anon_sym_expr), (22, tcl_anon_sym_expr), (23,
      tcl_anon_sym_expr), (24, tcl_anon_sym_expr), (25, tcl_anon_sym_expr), (26,
      tcl_anon_sym_expr), (27, tcl_anon_sym_expr), (28, tcl_anon_sym_expr), (29,
      tcl_anon_sym_expr)]),
     (200, [(669, tcl_anon_sym_RBRACE)]),
     (201, [(166, tcl_aux_sym__id_immediate_repeat1)]),
     (202, [(555, tcl_sym_arguments)]),
     (203, [(195, tcl_sym_unpack)]),
     (204, [(394, tcl_sym_simple_word)]),
     (205, [(205, tcl_aux_sym__id_immediate_repeat1), (267, tcl_aux_sym__id_immediate_repeat1),
      (276, tcl_aux_sym__id_immediate_repeat1)]),
     (206, [(108, tcl_anon_sym_LPAREN), (120, tcl_anon_sym_LPAREN), (127, tcl_anon_sym_LPAREN),
      (132, tcl_anon_sym_LPAREN)]),
     (207, [(187, tcl_sym_unpack)]),
     (208, [(132, tcl_sym_array_index)]),
     (209, [(193, tcl_sym_unpack)]),
     (210, [(167, tcl_sym_unpack)]),
     (211, [(120, tcl_sym_array_index)]),
     (212, [(174, tcl_sym_unpack)]),
     (213, [(502, tcl_sym__ident_imm), (503, tcl_sym__ident_imm)]),
     (214, [(213, tcl_aux_sym__id_immediate_repeat1)]),
     (215, [(644, tcl_sym__ident_imm)]),
     (216, [(216, tcl_aux_sym__id_immediate_repeat1), (254, tcl_aux_sym__id_immediate_repeat1),
      (261, tcl_aux_sym__id_immediate_repeat1)]),
     (217, [(215, tcl_aux_sym__id_immediate_repeat1)]),
     (218, [(177, tcl_sym_unpack)]),
     (219, [(175, tcl_sym_unpack)]),
     (220, [(1, tcl_sym_unpack), (2, tcl_sym_unpack), (3, tcl_sym_unpack), (4, tcl_sym_unpack),
      (5, tcl_sym_unpack), (6, tcl_sym_unpack), (7, tcl_sym_unpack), (8, tcl_sym_unpack), (9,
      tcl_sym_unpack), (10, tcl_sym_unpack), (11, tcl_sym_unpack), (12, tcl_sym_unpack), (13,
      tcl_sym_unpack), (14, tcl_sym_unpack), (15, tcl_sym_unpack), (16, tcl_sym_unpack), (17,
      tcl_sym_unpack), (18, tcl_sym_unpack), (19, tcl_sym_unpack)]),
     (221, [(173, tcl_sym_unpack)]),
     (222, [(214, tcl_aux_sym__id_immediate_repeat1), (217, tcl_aux_sym__id_immediate_repeat1),
      (222, tcl_aux_sym__id_immediate_repeat1)]),
     (223, [(155, tcl_sym_unpack)]),
     (224, [(179, tcl_sym_unpack)]),
     (225, [(20, tcl_anon_sym_regexp), (21, tcl_anon_sym_regexp), (22, tcl_anon_sym_regexp), (23,
      tcl_anon_sym_regexp), (24, tcl_anon_sym_regexp), (25, tcl_anon_sym_regexp), (26,
      tcl_anon_sym_regexp), (27, tcl_anon_sym_regexp), (28, tcl_anon_sym_regexp), (29,
      tcl_anon_sym_regexp)]),
     (226, [(20, tcl_anon_sym_global), (21, tcl_anon_sym_global), (22, tcl_anon_sym_global), (23,
      tcl_anon_sym_global), (24, tcl_anon_sym_global), (25, tcl_anon_sym_global), (26,
      tcl_anon_sym_global), (27, tcl_anon_sym_global), (28, tcl_anon_sym_global), (29,
      tcl_anon_sym_global)]),
     (227, [(148, tcl_sym_simple_word), (155, tcl_sym_simple_word), (167, tcl_sym_simple_word),
      (169, tcl_sym_simple_word), (170, tcl_sym_simple_word), (173, tcl_sym_simple_word), (174,
      tcl_sym_simple_word), (175, tcl_sym_simple_word), (177, tcl_sym_simple_word), (178,
      tcl_sym_simple_word), (179, tcl_sym_simple_word), (187, tcl_sym_simple_word), (192,
      tcl_sym_simple_word), (207, tcl_sym_simple_word), (210, tcl_sym_simple_word), (212,
      tcl_sym_simple_word), (218, tcl_sym_simple_word), (219, tcl_sym_simple_word), (221,
      tcl_sym_simple_word), (223, tcl_sym_simple_word), (224, tcl_sym_simple_word), (229,
      tcl_sym_simple_word), (257, tcl_sym_simple_word), (281, tcl_sym_simple_word)]),
     (228, [(20, tcl_sym_unpack), (21, tcl_sym_unpack), (22, tcl_sym_unpack), (23,
      tcl_sym_unpack), (24, tcl_sym_unpack), (25, tcl_sym_unpack), (26, tcl_sym_unpack), (27,
      tcl_sym_unpack), (28, tcl_sym_unpack), (29, tcl_sym_unpack)]),
     (229, [(169, tcl_sym_unpack)]),
     (230, [(226, tcl_aux_sym_regexp_repeat1)]),
     (231, [(102, tcl_sym_unpack), (105, tcl_sym_unpack), (111, tcl_sym_unpack), (112,
      tcl_sym_unpack), (115, tcl_sym_unpack)]),
     (232, [(395, tcl_anon_sym_DQUOTE)]),
     (233, [(147, tcl_sym_unpack)]),
     (234, [(149, tcl_sym_unpack)]),
     (235, [(389, tcl_sym_escaped_character), (389, tcl_sym_variable_substitution), (389,
      tcl_sym_quoted_word), (389, tcl_sym_command_substitution)]),
     (236, [(465, tcl_sym__id_immediate)]),
     (237, [(520, tcl_sym__ident)]),
     (238, [(152, tcl_sym_unpack)]),
     (239, [(180, tcl_sym_unpack)]),
     (240, [(150, tcl_sym_unpack)]),
     (241, [(153, tcl_sym_unpack)])]"

definition tcl_incoming_4 :: incoming where
  "tcl_incoming_4 =
    [(242, [(1, tcl_anon_sym_regexp), (2, tcl_anon_sym_regexp), (3, tcl_anon_sym_regexp), (4,
      tcl_anon_sym_regexp), (5, tcl_anon_sym_regexp), (6, tcl_anon_sym_regexp), (7,
      tcl_anon_sym_regexp), (8, tcl_anon_sym_regexp), (9, tcl_anon_sym_regexp), (10,
      tcl_anon_sym_regexp), (11, tcl_anon_sym_regexp), (12, tcl_anon_sym_regexp), (13,
      tcl_anon_sym_regexp), (14, tcl_anon_sym_regexp), (15, tcl_anon_sym_regexp), (16,
      tcl_anon_sym_regexp), (17, tcl_anon_sym_regexp), (18, tcl_anon_sym_regexp), (19,
      tcl_anon_sym_regexp)]),
     (243, [(157, tcl_sym_unpack)]),
     (244, [(158, tcl_sym_unpack)]),
     (245, [(160, tcl_sym_unpack)]),
     (246, [(319, tcl_sym__concat_word)]),
     (247, [(146, tcl_sym_unpack)]),
     (248, [(230, tcl_aux_sym_regexp_repeat1), (248, tcl_aux_sym_regexp_repeat1), (258,
      tcl_aux_sym_regexp_repeat1)]),
     (249, [(164, tcl_sym_unpack)]),
     (250, [(165, tcl_sym_unpack)]),
     (251, [(96, tcl_sym_unpack), (97, tcl_sym_unpack), (98, tcl_sym_unpack), (99,
      tcl_sym_unpack), (109, tcl_sym_unpack)]),
     (252, [(700, tcl_anon_sym_RBRACK)]),
     (253, [(370, tcl_anon_sym_DQUOTE)]),
     (254, [(237, tcl_aux_sym__id_immediate_repeat1)]),
     (255, [(168, tcl_sym_unpack)]),
     (256, [(658, tcl_sym__ident_imm)]),
     (257, [(170, tcl_sym_unpack)]),
     (258, [(246, tcl_aux_sym_regexp_repeat1)]),
     (259, [(676, tcl_sym__ident_imm)]),
     (260, [(631, tcl_anon_sym_RBRACE)]),
     (261, [(256, tcl_aux_sym__id_immediate_repeat1)]),
     (262, [(593, tcl_sym_arguments)]),
     (263, [(227, tcl_anon_sym_LPAREN), (283, tcl_anon_sym_LPAREN), (285, tcl_anon_sym_LPAREN),
      (298, tcl_anon_sym_LPAREN)]),
     (264, [(127, tcl_sym_array_index)]),
     (265, [(478, tcl_sym__ident_imm)]),
     (266, [(100, tcl_anon_sym_LPAREN)]),
     (267, [(265, tcl_aux_sym__id_immediate_repeat1)]),
     (268, [(406, tcl_anon_sym_LPAREN), (409, tcl_anon_sym_LPAREN), (440, tcl_anon_sym_LPAREN),
      (455, tcl_anon_sym_LPAREN), (491, tcl_anon_sym_LPAREN)]),
     (269, [(604, tcl_sym__ident_imm)]),
     (270, [(162, tcl_anon_sym_LPAREN), (204, tcl_anon_sym_LPAREN), (236, tcl_anon_sym_LPAREN),
      (260, tcl_anon_sym_LPAREN)]),
     (271, [(638, tcl_sym__ident_imm)]),
     (272, [(328, tcl_anon_sym_LPAREN), (332, tcl_anon_sym_LPAREN)]),
     (273, [(716, tcl_anon_sym_RPAREN)]),
     (274, [(505, tcl_anon_sym_LPAREN), (512, tcl_anon_sym_LPAREN)]),
     (275, [(412, tcl_anon_sym_LPAREN), (414, tcl_anon_sym_LPAREN)]),
     (276, [(269, tcl_aux_sym__id_immediate_repeat1)]),
     (277, [(337, tcl_anon_sym_LPAREN), (350, tcl_anon_sym_LPAREN), (374, tcl_anon_sym_LPAREN),
      (377, tcl_anon_sym_LPAREN)]),
     (278, [(110, tcl_anon_sym_LPAREN)]),
     (279, [(302, tcl_anon_sym_LPAREN), (303, tcl_anon_sym_LPAREN)]),
     (280, [(36, tcl_anon_sym_LPAREN), (37, tcl_anon_sym_LPAREN)]),
     (281, [(192, tcl_sym_unpack)]),
     (282, [(154, tcl_sym_unpack)]),
     (283, [(489, tcl_sym__id_immediate)]),
     (284, [(251, tcl_sym__concat_word), (251, tcl_sym_braced_word)]),
     (285, [(606, tcl_anon_sym_RBRACE)]),
     (286, [(15, tcl_anon_sym_RBRACE)]),
     (287, [(326, tcl_sym__concat), (329, tcl_sym__concat), (333, tcl_sym__concat)]),
     (288, [(616, tcl_sym__ident_imm)]),
     (289, [(150, tcl_sym__concat_word), (150, tcl_sym_braced_word)]),
     (290, [(162, tcl_aux_sym__concat_word_repeat1), (304, tcl_aux_sym__concat_word_repeat1)]),
     (291, [(4, tcl_anon_sym_RBRACE), (509, tcl_anon_sym_RBRACE)]),
     (292, [(162, tcl_sym_array_index)]),
     (293, [(461, tcl_anon_sym_RBRACE)]),
     (294, [(418, tcl_sym__concat), (421, tcl_sym__concat), (424, tcl_sym__concat)]),
     (295, [(464, tcl_sym__concat), (490, tcl_sym__concat), (498, tcl_sym__concat)]),
     (296, [(3, tcl_anon_sym_RBRACE)]),
     (297, [(514, tcl_sym__concat), (517, tcl_sym__concat), (518, tcl_sym__concat)]),
     (298, [(342, tcl_sym_simple_word)]),
     (299, [(290, tcl_aux_sym__concat_word_repeat1), (299, tcl_aux_sym__concat_word_repeat1),
      (300, tcl_aux_sym__concat_word_repeat1)]),
     (300, [(292, tcl_aux_sym__concat_word_repeat1)]),
     (301, [(307, tcl_sym__concat), (324, tcl_sym__concat), (339, tcl_sym__concat)])]"

definition tcl_incoming_5 :: incoming where
  "tcl_incoming_5 =
    [(302, [(500, tcl_sym__id_immediate)]),
     (303, [(633, tcl_anon_sym_RBRACE)]),
     (304, [(20, tcl_sym_escaped_character), (20, tcl_sym_variable_substitution), (20,
      tcl_sym_quoted_word), (20, tcl_sym_command_substitution), (21, tcl_sym_escaped_character),
      (21, tcl_sym_variable_substitution), (21, tcl_sym_quoted_word), (21,
      tcl_sym_command_substitution), (22, tcl_sym_escaped_character), (22,
      tcl_sym_variable_substitution), (22, tcl_sym_quoted_word), (22,
      tcl_sym_command_substitution), (23, tcl_sym_escaped_character), (23,
      tcl_sym_variable_substitution), (23, tcl_sym_quoted_word), (23,
      tcl_sym_command_substitution), (24, tcl_sym_escaped_character), (24,
      tcl_sym_variable_substitution), (24, tcl_sym_quoted_word), (24,
      tcl_sym_command_substitution), (25, tcl_sym_escaped_character), (25,
      tcl_sym_variable_substitution), (25, tcl_sym_quoted_word), (25,
      tcl_sym_command_substitution), (26, tcl_sym_escaped_character), (26,
      tcl_sym_variable_substitution), (26, tcl_sym_quoted_word), (26,
      tcl_sym_command_substitution), (27, tcl_sym_escaped_character), (27,
      tcl_sym_variable_substitution), (27, tcl_sym_quoted_word), (27,
      tcl_sym_command_substitution), (28, tcl_sym_escaped_character), (28,
      tcl_sym_variable_substitution), (28, tcl_sym_quoted_word), (28,
      tcl_sym_command_substitution), (29, tcl_sym_escaped_character), (29,
      tcl_sym_variable_substitution), (29, tcl_sym_quoted_word), (29,
      tcl_sym_command_substitution), (102, tcl_sym_escaped_character), (102,
      tcl_sym_variable_substitution), (102, tcl_sym_quoted_word), (102,
      tcl_sym_command_substitution), (105, tcl_sym_escaped_character), (105,
      tcl_sym_variable_substitution), (105, tcl_sym_quoted_word), (105,
      tcl_sym_command_substitution), (111, tcl_sym_escaped_character), (111,
      tcl_sym_variable_substitution), (111, tcl_sym_quoted_word), (111,
      tcl_sym_command_substitution), (112, tcl_sym_escaped_character), (112,
      tcl_sym_variable_substitution), (112, tcl_sym_quoted_word), (112,
      tcl_sym_command_substitution), (115, tcl_sym_escaped_character), (115,
      tcl_sym_variable_substitution), (115, tcl_sym_quoted_word), (115,
      tcl_sym_command_substitution), (150, tcl_sym_escaped_character), (150,
      tcl_sym_variable_substitution), (150, tcl_sym_quoted_word), (150,
      tcl_sym_command_substitution), (226, tcl_sym_escaped_character), (226,
      tcl_sym_variable_substitution), (226, tcl_sym_quoted_word), (226,
      tcl_sym_command_substitution), (228, tcl_sym_escaped_character), (228,
      tcl_sym_variable_substitution), (228, tcl_sym_quoted_word), (228,
      tcl_sym_command_substitution), (230, tcl_sym_escaped_character), (230,
      tcl_sym_variable_substitution), (230, tcl_sym_quoted_word), (230,
      tcl_sym_command_substitution), (231, tcl_sym_escaped_character), (231,
      tcl_sym_variable_substitution), (231, tcl_sym_quoted_word), (231,
      tcl_sym_command_substitution), (240, tcl_sym_escaped_character), (240,
      tcl_sym_variable_substitution), (240, tcl_sym_quoted_word), (240,
      tcl_sym_command_substitution), (246, tcl_sym_escaped_character), (246,
      tcl_sym_variable_substitution), (246, tcl_sym_quoted_word), (246,
      tcl_sym_command_substitution), (248, tcl_sym_escaped_character), (248,
      tcl_sym_variable_substitution), (248, tcl_sym_quoted_word), (248,
      tcl_sym_command_substitution), (258, tcl_sym_escaped_character), (258,
      tcl_sym_variable_substitution), (258, tcl_sym_quoted_word), (258,
      tcl_sym_command_substitution), (319, tcl_sym_escaped_character), (319,
      tcl_sym_variable_substitution), (319, tcl_sym_quoted_word), (319,
      tcl_sym_command_substitution)]),
     (305, [(646, tcl_sym__ident_imm)]),
     (306, [(240, tcl_sym__concat_word), (240, tcl_sym_braced_word)]),
     (307, [(339, tcl_aux_sym__word_simple_repeat1)]),
     (308, [(227, tcl_aux_sym__concat_word_repeat1), (312, tcl_aux_sym__concat_word_repeat1)]),
     (309, [(236, tcl_sym_array_index)]),
     (310, [(394, tcl_sym_escaped_character), (394, tcl_sym_variable_substitution), (394,
      tcl_sym_quoted_word), (394, tcl_sym_command_substitution)]),
     (311, [(330, tcl_aux_sym__id_immediate_repeat1)]),
     (312, [(148, tcl_sym_escaped_character), (148, tcl_sym_variable_substitution), (148,
      tcl_sym_quoted_word), (148, tcl_sym_command_substitution), (155, tcl_sym_escaped_character),
      (155, tcl_sym_variable_substitution), (155, tcl_sym_quoted_word), (155,
      tcl_sym_command_substitution), (167, tcl_sym_escaped_character), (167,
      tcl_sym_variable_substitution), (167, tcl_sym_quoted_word), (167,
      tcl_sym_command_substitution), (169, tcl_sym_escaped_character), (169,
      tcl_sym_variable_substitution), (169, tcl_sym_quoted_word), (169,
      tcl_sym_command_substitution), (170, tcl_sym_escaped_character), (170,
      tcl_sym_variable_substitution), (170, tcl_sym_quoted_word), (170,
      tcl_sym_command_substitution), (173, tcl_sym_escaped_character), (173,
      tcl_sym_variable_substitution), (173, tcl_sym_quoted_word), (173,
      tcl_sym_command_substitution), (174, tcl_sym_escaped_character), (174,
      tcl_sym_variable_substitution), (174, tcl_sym_quoted_word), (174,
      tcl_sym_command_substitution), (175, tcl_sym_escaped_character), (175,
      tcl_sym_variable_substitution), (175, tcl_sym_quoted_word), (175,
      tcl_sym_command_substitution), (177, tcl_sym_escaped_character), (177,
      tcl_sym_variable_substitution), (177, tcl_sym_quoted_word), (177,
      tcl_sym_command_substitution), (178, tcl_sym_escaped_character), (178,
      tcl_sym_variable_substitution), (178, tcl_sym_quoted_word), (178,
      tcl_sym_command_substitution), (179, tcl_sym_escaped_character), (179,
      tcl_sym_variable_substitution), (179, tcl_sym_quoted_word), (179,
      tcl_sym_command_substitution), (187, tcl_sym_escaped_character), (187,
      tcl_sym_variable_substitution), (187, tcl_sym_quoted_word), (187,
      tcl_sym_command_substitution), (192, tcl_sym_escaped_character), (192,
      tcl_sym_variable_substitution), (192, tcl_sym_quoted_word), (192,
      tcl_sym_command_substitution), (207, tcl_sym_escaped_character), (207,
      tcl_sym_variable_substitution), (207, tcl_sym_quoted_word), (207,
      tcl_sym_command_substitution), (210, tcl_sym_escaped_character), (210,
      tcl_sym_variable_substitution), (210, tcl_sym_quoted_word), (210,
      tcl_sym_command_substitution), (212, tcl_sym_escaped_character), (212,
      tcl_sym_variable_substitution), (212, tcl_sym_quoted_word), (212,
      tcl_sym_command_substitution), (218, tcl_sym_escaped_character), (218,
      tcl_sym_variable_substitution), (218, tcl_sym_quoted_word), (218,
      tcl_sym_command_substitution), (219, tcl_sym_escaped_character), (219,
      tcl_sym_variable_substitution), (219, tcl_sym_quoted_word), (219,
      tcl_sym_command_substitution), (221, tcl_sym_escaped_character), (221,
      tcl_sym_variable_substitution), (221, tcl_sym_quoted_word), (221,
      tcl_sym_command_substitution), (223, tcl_sym_escaped_character), (223,
      tcl_sym_variable_substitution), (223, tcl_sym_quoted_word), (223,
      tcl_sym_command_substitution), (224, tcl_sym_escaped_character), (224,
      tcl_sym_variable_substitution), (224, tcl_sym_quoted_word), (224,
      tcl_sym_command_substitution), (229, tcl_sym_escaped_character), (229,
      tcl_sym_variable_substitution), (229, tcl_sym_quoted_word), (229,
      tcl_sym_command_substitution), (257, tcl_sym_escaped_character), (257,
      tcl_sym_variable_substitution), (257, tcl_sym_quoted_word), (257,
      tcl_sym_command_substitution), (281, tcl_sym_escaped_character), (281,
      tcl_sym_variable_substitution), (281, tcl_sym_quoted_word), (281,
      tcl_sym_command_substitution)]),
     (313, [(341, tcl_anon_sym_DQUOTE)]),
     (314, [(621, tcl_sym__ident_imm)]),
     (315, [(227, tcl_sym_array_index)]),
     (316, [(308, tcl_aux_sym__concat_word_repeat1), (316, tcl_aux_sym__concat_word_repeat1),
      (318, tcl_aux_sym__concat_word_repeat1)]),
     (317, [(683, tcl_anon_sym_RBRACK)]),
     (318, [(315, tcl_aux_sym__concat_word_repeat1)]),
     (319, [(225, tcl_sym__word_simple)]),
     (320, [(376, tcl_anon_sym_DQUOTE)]),
     (321, [(640, tcl_sym__ident_imm)]),
     (322, [(314, tcl_aux_sym__id_immediate_repeat1)]),
     (323, [(311, tcl_aux_sym__id_immediate_repeat1), (322, tcl_aux_sym__id_immediate_repeat1),
      (323, tcl_aux_sym__id_immediate_repeat1)]),
     (324, [(307, tcl_aux_sym__word_simple_repeat1), (324, tcl_aux_sym__word_simple_repeat1)]),
     (325, [(260, tcl_sym_array_index)]),
     (326, [(326, tcl_aux_sym__word_simple_repeat1), (333, tcl_aux_sym__word_simple_repeat1)]),
     (327, [(687, tcl_sym__ident_imm)]),
     (328, [(478, tcl_sym__id_immediate)]),
     (329, [(202, tcl_sym_simple_word), (202, tcl_sym_escaped_character), (202,
      tcl_sym_variable_substitution), (202, tcl_sym_braced_word_simple), (202,
      tcl_sym_quoted_word), (202, tcl_sym_command_substitution), (262, tcl_sym_simple_word), (262,
      tcl_sym_escaped_character), (262, tcl_sym_variable_substitution), (262,
      tcl_sym_braced_word_simple), (262, tcl_sym_quoted_word), (262,
      tcl_sym_command_substitution)]),
     (330, [(499, tcl_sym__ident_imm)]),
     (331, [(204, tcl_sym_array_index)]),
     (332, [(655, tcl_anon_sym_RBRACE)]),
     (333, [(329, tcl_aux_sym__word_simple_repeat1)]),
     (334, [(242, tcl_sym__word_simple)]),
     (335, [(662, tcl_anon_sym_RPAREN)]),
     (336, [(652, tcl_sym__ident_imm)]),
     (337, [(147, tcl_sym_simple_word), (154, tcl_sym_simple_word), (164, tcl_sym_simple_word),
      (165, tcl_sym_simple_word), (168, tcl_sym_simple_word), (233, tcl_sym_simple_word), (249,
      tcl_sym_simple_word), (250, tcl_sym_simple_word), (255, tcl_sym_simple_word), (282,
      tcl_sym_simple_word)]),
     (338, [(609, tcl_anon_sym_RPAREN)]),
     (339, [(125, tcl_sym_simple_word), (125, tcl_sym_escaped_character), (125,
      tcl_sym_variable_substitution), (125, tcl_sym_braced_word_simple), (125,
      tcl_sym_quoted_word), (125, tcl_sym_command_substitution), (126, tcl_sym_simple_word), (126,
      tcl_sym_escaped_character), (126, tcl_sym_variable_substitution), (126,
      tcl_sym_braced_word_simple), (126, tcl_sym_quoted_word), (126,
      tcl_sym_command_substitution), (128, tcl_sym_simple_word), (128, tcl_sym_escaped_character),
      (128, tcl_sym_variable_substitution), (128, tcl_sym_braced_word_simple), (128,
      tcl_sym_quoted_word), (128, tcl_sym_command_substitution), (130, tcl_sym_simple_word), (130,
      tcl_sym_escaped_character), (130, tcl_sym_variable_substitution), (130,
      tcl_sym_braced_word_simple), (130, tcl_sym_quoted_word), (130,
      tcl_sym_command_substitution), (131, tcl_sym_simple_word), (131, tcl_sym_escaped_character),
      (131, tcl_sym_variable_substitution), (131, tcl_sym_braced_word_simple), (131,
      tcl_sym_quoted_word), (131, tcl_sym_command_substitution), (134, tcl_sym_simple_word), (134,
      tcl_sym_escaped_character), (134, tcl_sym_variable_substitution), (134,
      tcl_sym_braced_word_simple), (134, tcl_sym_quoted_word), (134,
      tcl_sym_command_substitution), (135, tcl_sym_simple_word), (135, tcl_sym_escaped_character),
      (135, tcl_sym_variable_substitution), (135, tcl_sym_braced_word_simple), (135,
      tcl_sym_quoted_word), (135, tcl_sym_command_substitution), (136, tcl_sym_simple_word), (136,
      tcl_sym_escaped_character), (136, tcl_sym_variable_substitution), (136,
      tcl_sym_braced_word_simple), (136, tcl_sym_quoted_word), (136,
      tcl_sym_command_substitution), (137, tcl_sym_simple_word), (137, tcl_sym_escaped_character),
      (137, tcl_sym_variable_substitution), (137, tcl_sym_braced_word_simple), (137,
      tcl_sym_quoted_word), (137, tcl_sym_command_substitution), (140, tcl_sym_simple_word), (140,
      tcl_sym_escaped_character), (140, tcl_sym_variable_substitution), (140,
      tcl_sym_braced_word_simple), (140, tcl_sym_quoted_word), (140,
      tcl_sym_command_substitution), (143, tcl_sym_simple_word), (143, tcl_sym_escaped_character),
      (143, tcl_sym_variable_substitution), (143, tcl_sym_braced_word_simple), (143,
      tcl_sym_quoted_word), (143, tcl_sym_command_substitution)]),
     (340, [(10, tcl_anon_sym_RBRACE)]),
     (341, [(376, tcl_aux_sym_quoted_word_repeat1)]),
     (342, [(227, tcl_sym__concat), (308, tcl_sym__concat), (312, tcl_sym__concat), (315,
      tcl_sym__concat), (316, tcl_sym__concat), (318, tcl_sym__concat)]),
     (343, [(283, tcl_sym_array_index)]),
     (344, [(345, tcl_anon_sym_DQUOTE)]),
     (345, [(100, tcl_anon_sym_DQUOTE), (113, tcl_anon_sym_DQUOTE), (114, tcl_anon_sym_DQUOTE),
      (148, tcl_anon_sym_DQUOTE), (155, tcl_anon_sym_DQUOTE), (167, tcl_anon_sym_DQUOTE), (169,
      tcl_anon_sym_DQUOTE), (170, tcl_anon_sym_DQUOTE), (173, tcl_anon_sym_DQUOTE), (174,
      tcl_anon_sym_DQUOTE), (175, tcl_anon_sym_DQUOTE), (177, tcl_anon_sym_DQUOTE), (178,
      tcl_anon_sym_DQUOTE), (179, tcl_anon_sym_DQUOTE), (187, tcl_anon_sym_DQUOTE), (192,
      tcl_anon_sym_DQUOTE), (207, tcl_anon_sym_DQUOTE), (210, tcl_anon_sym_DQUOTE), (212,
      tcl_anon_sym_DQUOTE), (218, tcl_anon_sym_DQUOTE), (219, tcl_anon_sym_DQUOTE), (221,
      tcl_anon_sym_DQUOTE), (223, tcl_anon_sym_DQUOTE), (224, tcl_anon_sym_DQUOTE), (229,
      tcl_anon_sym_DQUOTE), (257, tcl_anon_sym_DQUOTE), (281, tcl_anon_sym_DQUOTE), (295,
      tcl_anon_sym_DQUOTE), (342, tcl_anon_sym_DQUOTE)]),
     (346, [(285, tcl_sym_array_index)]),
     (347, [(345, tcl_aux_sym_quoted_word_repeat1)]),
     (348, [(337, tcl_sym__concat), (398, tcl_sym__concat), (399, tcl_sym__concat), (400,
      tcl_sym__concat), (402, tcl_sym__concat), (403, tcl_sym__concat)]),
     (349, [(19, tcl_anon_sym_RBRACE)]),
     (350, [(502, tcl_sym__id_immediate)]),
     (351, [(354, tcl_anon_sym_DQUOTE)]),
     (352, [(110, tcl_anon_sym_DQUOTE), (146, tcl_anon_sym_DQUOTE), (149, tcl_anon_sym_DQUOTE),
      (152, tcl_anon_sym_DQUOTE), (153, tcl_anon_sym_DQUOTE), (157, tcl_anon_sym_DQUOTE), (158,
      tcl_anon_sym_DQUOTE), (160, tcl_anon_sym_DQUOTE), (193, tcl_anon_sym_DQUOTE), (195,
      tcl_anon_sym_DQUOTE), (196, tcl_anon_sym_DQUOTE), (200, tcl_anon_sym_DQUOTE), (203,
      tcl_anon_sym_DQUOTE), (206, tcl_anon_sym_DQUOTE), (209, tcl_anon_sym_DQUOTE), (234,
      tcl_anon_sym_DQUOTE), (238, tcl_anon_sym_DQUOTE), (241, tcl_anon_sym_DQUOTE), (243,
      tcl_anon_sym_DQUOTE), (244, tcl_anon_sym_DQUOTE), (245, tcl_anon_sym_DQUOTE), (247,
      tcl_anon_sym_DQUOTE), (263, tcl_anon_sym_DQUOTE), (266, tcl_anon_sym_DQUOTE), (268,
      tcl_anon_sym_DQUOTE), (270, tcl_anon_sym_DQUOTE), (272, tcl_anon_sym_DQUOTE), (274,
      tcl_anon_sym_DQUOTE), (275, tcl_anon_sym_DQUOTE), (277, tcl_anon_sym_DQUOTE), (278,
      tcl_anon_sym_DQUOTE), (279, tcl_anon_sym_DQUOTE), (280, tcl_anon_sym_DQUOTE), (289,
      tcl_anon_sym_DQUOTE), (297, tcl_anon_sym_DQUOTE), (306, tcl_anon_sym_DQUOTE), (371,
      tcl_anon_sym_DQUOTE), (375, tcl_anon_sym_DQUOTE)]),
     (353, [(352, tcl_aux_sym_quoted_word_repeat1)]),
     (354, [(125, tcl_anon_sym_DQUOTE), (126, tcl_anon_sym_DQUOTE), (128, tcl_anon_sym_DQUOTE),
      (130, tcl_anon_sym_DQUOTE), (131, tcl_anon_sym_DQUOTE), (134, tcl_anon_sym_DQUOTE), (135,
      tcl_anon_sym_DQUOTE), (136, tcl_anon_sym_DQUOTE), (137, tcl_anon_sym_DQUOTE), (140,
      tcl_anon_sym_DQUOTE), (143, tcl_anon_sym_DQUOTE), (301, tcl_anon_sym_DQUOTE)]),
     (355, [(354, tcl_aux_sym_quoted_word_repeat1)]),
     (356, [(73, tcl_anon_sym_DQUOTE), (74, tcl_anon_sym_DQUOTE), (75, tcl_anon_sym_DQUOTE), (76,
      tcl_anon_sym_DQUOTE), (77, tcl_anon_sym_DQUOTE), (78, tcl_anon_sym_DQUOTE), (79,
      tcl_anon_sym_DQUOTE), (80, tcl_anon_sym_DQUOTE), (81, tcl_anon_sym_DQUOTE), (82,
      tcl_anon_sym_DQUOTE), (83, tcl_anon_sym_DQUOTE), (84, tcl_anon_sym_DQUOTE), (85,
      tcl_anon_sym_DQUOTE), (86, tcl_anon_sym_DQUOTE), (87, tcl_anon_sym_DQUOTE), (88,
      tcl_anon_sym_DQUOTE), (89, tcl_anon_sym_DQUOTE), (90, tcl_anon_sym_DQUOTE), (91,
      tcl_anon_sym_DQUOTE), (92, tcl_anon_sym_DQUOTE), (93, tcl_anon_sym_DQUOTE), (94,
      tcl_anon_sym_DQUOTE), (95, tcl_anon_sym_DQUOTE), (199, tcl_anon_sym_DQUOTE), (401,
      tcl_anon_sym_DQUOTE)]),
     (357, [(356, tcl_aux_sym_quoted_word_repeat1)]),
     (358, [(147, tcl_anon_sym_DQUOTE), (154, tcl_anon_sym_DQUOTE), (164, tcl_anon_sym_DQUOTE),
      (165, tcl_anon_sym_DQUOTE), (168, tcl_anon_sym_DQUOTE), (233, tcl_anon_sym_DQUOTE), (249,
      tcl_anon_sym_DQUOTE), (250, tcl_anon_sym_DQUOTE), (255, tcl_anon_sym_DQUOTE), (282,
      tcl_anon_sym_DQUOTE), (348, tcl_anon_sym_DQUOTE)]),
     (359, [(358, tcl_aux_sym_quoted_word_repeat1)]),
     (360, [(218, tcl_sym__concat_word), (218, tcl_sym_braced_word)]),
     (361, [(143, tcl_anon_sym_RBRACE)])]"

definition tcl_incoming_6 :: incoming where
  "tcl_incoming_6 =
    [(362, [(383, tcl_aux_sym_if_repeat1)]),
     (363, [(287, tcl_sym_simple_word), (287, tcl_sym_escaped_character), (287,
      tcl_sym_variable_substitution), (287, tcl_sym_braced_word_simple), (287,
      tcl_sym_quoted_word), (287, tcl_sym_command_substitution)]),
     (364, [(298, tcl_sym_array_index)]),
     (365, [(355, tcl_anon_sym_DQUOTE)]),
     (366, [(347, tcl_anon_sym_DQUOTE)]),
     (367, [(231, tcl_sym__concat_word), (231, tcl_sym_braced_word)]),
     (368, [(342, tcl_sym_escaped_character), (342, tcl_sym_variable_substitution), (342,
      tcl_sym_quoted_word), (342, tcl_sym_command_substitution)]),
     (369, [(622, tcl_anon_sym_RPAREN)]),
     (370, [(1, tcl_anon_sym_DQUOTE), (2, tcl_anon_sym_DQUOTE), (3, tcl_anon_sym_DQUOTE), (4,
      tcl_anon_sym_DQUOTE), (5, tcl_anon_sym_DQUOTE), (6, tcl_anon_sym_DQUOTE), (7,
      tcl_anon_sym_DQUOTE), (8, tcl_anon_sym_DQUOTE), (9, tcl_anon_sym_DQUOTE), (10,
      tcl_anon_sym_DQUOTE), (11, tcl_anon_sym_DQUOTE), (12, tcl_anon_sym_DQUOTE), (13,
      tcl_anon_sym_DQUOTE), (14, tcl_anon_sym_DQUOTE), (15, tcl_anon_sym_DQUOTE), (16,
      tcl_anon_sym_DQUOTE), (17, tcl_anon_sym_DQUOTE), (18, tcl_anon_sym_DQUOTE), (19,
      tcl_anon_sym_DQUOTE), (96, tcl_anon_sym_DQUOTE), (97, tcl_anon_sym_DQUOTE), (98,
      tcl_anon_sym_DQUOTE), (99, tcl_anon_sym_DQUOTE), (109, tcl_anon_sym_DQUOTE), (119,
      tcl_anon_sym_DQUOTE), (121, tcl_anon_sym_DQUOTE), (129, tcl_anon_sym_DQUOTE), (138,
      tcl_anon_sym_DQUOTE), (141, tcl_anon_sym_DQUOTE), (180, tcl_anon_sym_DQUOTE), (220,
      tcl_anon_sym_DQUOTE), (239, tcl_anon_sym_DQUOTE), (251, tcl_anon_sym_DQUOTE), (334,
      tcl_anon_sym_DQUOTE), (389, tcl_anon_sym_DQUOTE)]),
     (371, [(491, tcl_sym__concat), (595, tcl_sym__concat), (597, tcl_sym__concat), (598,
      tcl_sym__concat), (599, tcl_sym__concat), (600, tcl_sym__concat)]),
     (372, [(485, tcl_anon_sym_RBRACE)]),
     (373, [(396, tcl_aux_sym_quoted_word_repeat1)]),
     (374, [(647, tcl_anon_sym_RBRACE)]),
     (375, [(455, tcl_sym__concat), (515, tcl_sym__concat), (521, tcl_sym__concat), (530,
      tcl_sym__concat), (531, tcl_sym__concat), (533, tcl_sym__concat)]),
     (376, [(20, tcl_anon_sym_DQUOTE), (21, tcl_anon_sym_DQUOTE), (22, tcl_anon_sym_DQUOTE), (23,
      tcl_anon_sym_DQUOTE), (24, tcl_anon_sym_DQUOTE), (25, tcl_anon_sym_DQUOTE), (26,
      tcl_anon_sym_DQUOTE), (27, tcl_anon_sym_DQUOTE), (28, tcl_anon_sym_DQUOTE), (29,
      tcl_anon_sym_DQUOTE), (102, tcl_anon_sym_DQUOTE), (105, tcl_anon_sym_DQUOTE), (111,
      tcl_anon_sym_DQUOTE), (112, tcl_anon_sym_DQUOTE), (115, tcl_anon_sym_DQUOTE), (150,
      tcl_anon_sym_DQUOTE), (202, tcl_anon_sym_DQUOTE), (225, tcl_anon_sym_DQUOTE), (226,
      tcl_anon_sym_DQUOTE), (228, tcl_anon_sym_DQUOTE), (230, tcl_anon_sym_DQUOTE), (231,
      tcl_anon_sym_DQUOTE), (240, tcl_anon_sym_DQUOTE), (242, tcl_anon_sym_DQUOTE), (246,
      tcl_anon_sym_DQUOTE), (248, tcl_anon_sym_DQUOTE), (258, tcl_anon_sym_DQUOTE), (262,
      tcl_anon_sym_DQUOTE), (287, tcl_anon_sym_DQUOTE), (294, tcl_anon_sym_DQUOTE), (319,
      tcl_anon_sym_DQUOTE), (394, tcl_anon_sym_DQUOTE)]),
     (377, [(348, tcl_sym_simple_word)]),
     (378, [(663, tcl_anon_sym_RBRACK)]),
     (379, [(12, tcl_anon_sym_RBRACE), (488, tcl_anon_sym_RBRACE)]),
     (380, [(360, tcl_aux_sym_if_repeat1)]),
     (381, [(302, tcl_sym_array_index)]),
     (382, [(603, tcl_anon_sym_RBRACK)]),
     (383, [(177, tcl_sym__concat_word), (177, tcl_sym_braced_word)]),
     (384, [(131, tcl_anon_sym_RBRACE)]),
     (385, [(341, tcl_aux_sym_quoted_word_repeat1), (347, tcl_aux_sym_quoted_word_repeat1), (353,
      tcl_aux_sym_quoted_word_repeat1), (355, tcl_aux_sym_quoted_word_repeat1), (357,
      tcl_aux_sym_quoted_word_repeat1), (359, tcl_aux_sym_quoted_word_repeat1), (373,
      tcl_aux_sym_quoted_word_repeat1), (385, tcl_aux_sym_quoted_word_repeat1), (393,
      tcl_aux_sym_quoted_word_repeat1), (395, tcl_aux_sym_quoted_word_repeat1)]),
     (386, [(294, tcl_sym_simple_word), (294, tcl_sym_escaped_character), (294,
      tcl_sym_variable_substitution), (294, tcl_sym_braced_word_simple), (294,
      tcl_sym_quoted_word), (294, tcl_sym_command_substitution), (301, tcl_sym_simple_word), (301,
      tcl_sym_escaped_character), (301, tcl_sym_variable_substitution), (301,
      tcl_sym_braced_word_simple), (301, tcl_sym_quoted_word), (301,
      tcl_sym_command_substitution)]),
     (387, [(140, tcl_anon_sym_RBRACE)]),
     (388, [(303, tcl_sym_array_index)]),
     (389, [(108, tcl_sym__concat), (159, tcl_sym__concat), (161, tcl_sym__concat), (182,
      tcl_sym__concat), (183, tcl_sym__concat), (198, tcl_sym__concat)]),
     (390, [(172, tcl_anon_sym_DQUOTE)]),
     (391, [(130, tcl_anon_sym_RBRACE)]),
     (392, [(651, tcl_anon_sym_RPAREN)]),
     (393, [(390, tcl_aux_sym_quoted_word_repeat1)]),
     (394, [(162, tcl_sym__concat), (290, tcl_sym__concat), (292, tcl_sym__concat), (299,
      tcl_sym__concat), (300, tcl_sym__concat), (304, tcl_sym__concat)]),
     (395, [(370, tcl_aux_sym_quoted_word_repeat1)]),
     (396, [(156, tcl_anon_sym_DQUOTE), (163, tcl_anon_sym_DQUOTE), (176, tcl_anon_sym_DQUOTE),
      (184, tcl_anon_sym_DQUOTE), (185, tcl_anon_sym_DQUOTE), (186, tcl_anon_sym_DQUOTE), (190,
      tcl_anon_sym_DQUOTE)]),
     (397, [(497, tcl_sym__ident_imm)]),
     (398, [(147, tcl_sym_escaped_character), (147, tcl_sym_variable_substitution), (147,
      tcl_sym_quoted_word), (147, tcl_sym_command_substitution), (154, tcl_sym_escaped_character),
      (154, tcl_sym_variable_substitution), (154, tcl_sym_quoted_word), (154,
      tcl_sym_command_substitution), (164, tcl_sym_escaped_character), (164,
      tcl_sym_variable_substitution), (164, tcl_sym_quoted_word), (164,
      tcl_sym_command_substitution), (165, tcl_sym_escaped_character), (165,
      tcl_sym_variable_substitution), (165, tcl_sym_quoted_word), (165,
      tcl_sym_command_substitution), (168, tcl_sym_escaped_character), (168,
      tcl_sym_variable_substitution), (168, tcl_sym_quoted_word), (168,
      tcl_sym_command_substitution), (233, tcl_sym_escaped_character), (233,
      tcl_sym_variable_substitution), (233, tcl_sym_quoted_word), (233,
      tcl_sym_command_substitution), (249, tcl_sym_escaped_character), (249,
      tcl_sym_variable_substitution), (249, tcl_sym_quoted_word), (249,
      tcl_sym_command_substitution), (250, tcl_sym_escaped_character), (250,
      tcl_sym_variable_substitution), (250, tcl_sym_quoted_word), (250,
      tcl_sym_command_substitution), (255, tcl_sym_escaped_character), (255,
      tcl_sym_variable_substitution), (255, tcl_sym_quoted_word), (255,
      tcl_sym_command_substitution), (282, tcl_sym_escaped_character), (282,
      tcl_sym_variable_substitution), (282, tcl_sym_quoted_word), (282,
      tcl_sym_command_substitution)]),
     (399, [(337, tcl_aux_sym__concat_word_repeat1), (398, tcl_aux_sym__concat_word_repeat1)]),
     (400, [(337, tcl_sym_array_index)]),
     (401, [(664, tcl_sym_simple_word)]),
     (402, [(399, tcl_aux_sym__concat_word_repeat1), (402, tcl_aux_sym__concat_word_repeat1),
      (403, tcl_aux_sym__concat_word_repeat1)]),
     (403, [(400, tcl_aux_sym__concat_word_repeat1)]),
     (404, [(404, tcl_aux_sym__id_immediate_repeat1), (435, tcl_aux_sym__id_immediate_repeat1),
      (437, tcl_aux_sym__id_immediate_repeat1)]),
     (405, [(557, tcl_sym_simple_word), (559, tcl_sym_simple_word), (572, tcl_sym_simple_word),
      (574, tcl_sym_simple_word), (576, tcl_sym_simple_word), (577, tcl_sym_simple_word), (596,
      tcl_sym_simple_word), (601, tcl_sym_simple_word)]),
     (406, [(497, tcl_sym__id_immediate), (503, tcl_sym__id_immediate)]),
     (407, [(397, tcl_aux_sym__id_immediate_repeat1)]),
     (408, [(613, tcl_sym__ident_imm)]),
     (409, [(617, tcl_anon_sym_RBRACE)]),
     (410, [(408, tcl_aux_sym__id_immediate_repeat1)]),
     (411, [(618, tcl_anon_sym_RPAREN)]),
     (412, [(499, tcl_sym__id_immediate)]),
     (413, [(407, tcl_aux_sym__id_immediate_repeat1), (410, tcl_aux_sym__id_immediate_repeat1),
      (413, tcl_aux_sym__id_immediate_repeat1)]),
     (414, [(625, tcl_anon_sym_RBRACE)]),
     (415, [(16, tcl_anon_sym_RBRACE)]),
     (416, [(632, tcl_sym__ident_imm)]),
     (417, [(362, tcl_aux_sym_if_repeat1), (380, tcl_aux_sym_if_repeat1), (417,
      tcl_aux_sym_if_repeat1)]),
     (418, [(421, tcl_aux_sym__word_simple_repeat1)]),
     (419, [(468, tcl_anon_sym_RBRACE)]),
     (420, [(648, tcl_anon_sym_RPAREN)]),
     (421, [(225, tcl_sym_simple_word), (225, tcl_sym_escaped_character), (225,
      tcl_sym_variable_substitution), (225, tcl_sym_braced_word_simple), (225,
      tcl_sym_quoted_word), (225, tcl_sym_command_substitution), (242, tcl_sym_simple_word), (242,
      tcl_sym_escaped_character), (242, tcl_sym_variable_substitution), (242,
      tcl_sym_braced_word_simple), (242, tcl_sym_quoted_word), (242,
      tcl_sym_command_substitution)])]"

definition tcl_incoming_7 :: incoming where
  "tcl_incoming_7 =
    [(422, [(472, tcl_anon_sym_RBRACE)]),
     (423, [(6, tcl_anon_sym_RBRACE), (474, tcl_anon_sym_RBRACE)]),
     (424, [(418, tcl_aux_sym__word_simple_repeat1), (424, tcl_aux_sym__word_simple_repeat1)]),
     (425, [(7, tcl_anon_sym_RBRACE)]),
     (426, [(68, tcl_anon_sym_RBRACE)]),
     (427, [(396, tcl_anon_sym_DQUOTE)]),
     (428, [(69, tcl_anon_sym_RPAREN)]),
     (429, [(328, tcl_sym_array_index)]),
     (430, [(373, tcl_anon_sym_DQUOTE)]),
     (431, [(619, tcl_anon_sym_RBRACK)]),
     (432, [(332, tcl_sym_array_index)]),
     (433, [(483, tcl_sym__ident_imm)]),
     (434, [(156, tcl_sym__expr_atom_no_brace), (163, tcl_sym__expr_atom_no_brace), (176,
      tcl_sym__expr_atom_no_brace), (184, tcl_sym__expr_atom_no_brace), (185,
      tcl_sym__expr_atom_no_brace), (186, tcl_sym__expr_atom_no_brace), (190,
      tcl_sym__expr_atom_no_brace)]),
     (435, [(433, tcl_aux_sym__id_immediate_repeat1)]),
     (436, [(673, tcl_sym__ident_imm)]),
     (437, [(436, tcl_aux_sym__id_immediate_repeat1)]),
     (438, [(467, tcl_anon_sym_RBRACE)]),
     (439, [(471, tcl_anon_sym_RBRACE)]),
     (440, [(371, tcl_sym_simple_word), (375, tcl_sym_simple_word)]),
     (441, [(358, tcl_anon_sym_DQUOTE)]),
     (442, [(359, tcl_anon_sym_DQUOTE)]),
     (443, [(377, tcl_sym_array_index)]),
     (444, [(350, tcl_sym_array_index)]),
     (445, [(645, tcl_anon_sym_RBRACK)]),
     (446, [(642, tcl_anon_sym_RPAREN)]),
     (447, [(374, tcl_sym_array_index)]),
     (448, [(555, tcl_sym_simple_word), (593, tcl_sym_simple_word)]),
     (449, [(154, tcl_sym__concat_word), (154, tcl_sym_braced_word)]),
     (450, [(348, tcl_sym_escaped_character), (348, tcl_sym_variable_substitution), (348,
      tcl_sym_quoted_word), (348, tcl_sym_command_substitution)]),
     (451, [(469, tcl_anon_sym_RBRACE)]),
     (452, [(282, tcl_sym__concat_word), (282, tcl_sym_braced_word)]),
     (453, [(449, tcl_aux_sym_if_repeat1)]),
     (454, [(452, tcl_aux_sym_if_repeat1)]),
     (455, [(193, tcl_sym_simple_word), (195, tcl_sym_simple_word), (203, tcl_sym_simple_word),
      (209, tcl_sym_simple_word)]),
     (456, [(187, tcl_sym__concat_word), (187, tcl_sym_braced_word)]),
     (457, [(207, tcl_sym__concat_word), (207, tcl_sym_braced_word)]),
     (458, [(615, tcl_anon_sym_RBRACK)]),
     (459, [(212, tcl_sym__concat_word), (212, tcl_sym_braced_word)]),
     (460, [(492, tcl_anon_sym_RBRACE)]),
     (461, [(15, tcl_sym__command)]),
     (462, [(360, tcl_sym_elseif), (362, tcl_sym_elseif), (380, tcl_sym_elseif), (383,
      tcl_sym_elseif), (417, tcl_sym_elseif)]),
     (463, [(352, tcl_anon_sym_DQUOTE)]),
     (464, [(464, tcl_aux_sym__word_simple_repeat1), (490, tcl_aux_sym__word_simple_repeat1)]),
     (465, [(20, tcl_anon_sym_DOLLAR), (21, tcl_anon_sym_DOLLAR), (22, tcl_anon_sym_DOLLAR), (23,
      tcl_anon_sym_DOLLAR), (24, tcl_anon_sym_DOLLAR), (25, tcl_anon_sym_DOLLAR), (26,
      tcl_anon_sym_DOLLAR), (27, tcl_anon_sym_DOLLAR), (28, tcl_anon_sym_DOLLAR), (29,
      tcl_anon_sym_DOLLAR), (102, tcl_anon_sym_DOLLAR), (105, tcl_anon_sym_DOLLAR), (111,
      tcl_anon_sym_DOLLAR), (112, tcl_anon_sym_DOLLAR), (115, tcl_anon_sym_DOLLAR), (150,
      tcl_anon_sym_DOLLAR), (202, tcl_anon_sym_DOLLAR), (225, tcl_anon_sym_DOLLAR), (226,
      tcl_anon_sym_DOLLAR), (228, tcl_anon_sym_DOLLAR), (230, tcl_anon_sym_DOLLAR), (231,
      tcl_anon_sym_DOLLAR), (240, tcl_anon_sym_DOLLAR), (242, tcl_anon_sym_DOLLAR), (246,
      tcl_anon_sym_DOLLAR), (248, tcl_anon_sym_DOLLAR), (258, tcl_anon_sym_DOLLAR), (262,
      tcl_anon_sym_DOLLAR), (287, tcl_anon_sym_DOLLAR), (294, tcl_anon_sym_DOLLAR), (319,
      tcl_anon_sym_DOLLAR), (394, tcl_anon_sym_DOLLAR)]),
     (466, [(466, tcl_aux_sym_braced_word_repeat2), (474, tcl_aux_sym_braced_word_repeat2), (481,
      tcl_aux_sym_braced_word_repeat2), (488, tcl_aux_sym_braced_word_repeat2), (495,
      tcl_aux_sym_braced_word_repeat2), (509, tcl_aux_sym_braced_word_repeat2)]),
     (467, [(557, tcl_anon_sym_LBRACE), (559, tcl_anon_sym_LBRACE), (572, tcl_anon_sym_LBRACE),
      (574, tcl_anon_sym_LBRACE), (576, tcl_anon_sym_LBRACE), (577, tcl_anon_sym_LBRACE), (596,
      tcl_anon_sym_LBRACE), (601, tcl_anon_sym_LBRACE)]),
     (468, [(16, tcl_sym__command)]),
     (469, [(555, tcl_anon_sym_LBRACE), (593, tcl_anon_sym_LBRACE)]),
     (470, [(179, tcl_sym__concat_word), (179, tcl_sym_braced_word), (221, tcl_sym__concat_word),
      (221, tcl_sym_braced_word)]),
     (471, [(469, tcl_aux_sym_arguments_repeat1)]),
     (472, [(467, tcl_aux_sym_arguments_repeat1)]),
     (473, [(11, tcl_anon_sym_RBRACE), (495, tcl_anon_sym_RBRACE)]),
     (474, [(468, tcl_aux_sym_braced_word_repeat2)]),
     (475, [(406, tcl_sym_array_index)]),
     (476, [(353, tcl_anon_sym_DQUOTE)]),
     (477, [(634, tcl_anon_sym_RPAREN)]),
     (478, [(156, tcl_anon_sym_DOLLAR), (163, tcl_anon_sym_DOLLAR), (176, tcl_anon_sym_DOLLAR),
      (184, tcl_anon_sym_DOLLAR), (185, tcl_anon_sym_DOLLAR), (186, tcl_anon_sym_DOLLAR), (190,
      tcl_anon_sym_DOLLAR)]),
     (479, [(453, tcl_aux_sym_if_repeat1), (454, tcl_aux_sym_if_repeat1), (479,
      tcl_aux_sym_if_repeat1)]),
     (480, [(17, tcl_sym__command)]),
     (481, [(480, tcl_aux_sym_braced_word_repeat2)])]"

definition tcl_incoming_8 :: incoming where
  "tcl_incoming_8 =
    [(482, [(174, tcl_sym__concat_word), (174, tcl_sym_braced_word)]),
     (483, [(172, tcl_anon_sym_DOLLAR)]),
     (484, [(698, tcl_anon_sym_RPAREN)]),
     (485, [(19, tcl_sym__command)]),
     (486, [(224, tcl_sym__concat_word), (224, tcl_sym_braced_word)]),
     (487, [(414, tcl_sym_array_index)]),
     (488, [(485, tcl_aux_sym_braced_word_repeat2)]),
     (489, [(100, tcl_anon_sym_DOLLAR), (113, tcl_anon_sym_DOLLAR), (114, tcl_anon_sym_DOLLAR),
      (148, tcl_anon_sym_DOLLAR), (155, tcl_anon_sym_DOLLAR), (167, tcl_anon_sym_DOLLAR), (169,
      tcl_anon_sym_DOLLAR), (170, tcl_anon_sym_DOLLAR), (173, tcl_anon_sym_DOLLAR), (174,
      tcl_anon_sym_DOLLAR), (175, tcl_anon_sym_DOLLAR), (177, tcl_anon_sym_DOLLAR), (178,
      tcl_anon_sym_DOLLAR), (179, tcl_anon_sym_DOLLAR), (187, tcl_anon_sym_DOLLAR), (192,
      tcl_anon_sym_DOLLAR), (207, tcl_anon_sym_DOLLAR), (210, tcl_anon_sym_DOLLAR), (212,
      tcl_anon_sym_DOLLAR), (218, tcl_anon_sym_DOLLAR), (219, tcl_anon_sym_DOLLAR), (221,
      tcl_anon_sym_DOLLAR), (223, tcl_anon_sym_DOLLAR), (224, tcl_anon_sym_DOLLAR), (229,
      tcl_anon_sym_DOLLAR), (257, tcl_anon_sym_DOLLAR), (281, tcl_anon_sym_DOLLAR), (295,
      tcl_anon_sym_DOLLAR), (342, tcl_anon_sym_DOLLAR)]),
     (490, [(498, tcl_aux_sym__word_simple_repeat1)]),
     (491, [(146, tcl_sym_simple_word), (149, tcl_sym_simple_word), (152, tcl_sym_simple_word),
      (153, tcl_sym_simple_word), (157, tcl_sym_simple_word), (158, tcl_sym_simple_word), (160,
      tcl_sym_simple_word), (234, tcl_sym_simple_word), (238, tcl_sym_simple_word), (241,
      tcl_sym_simple_word), (243, tcl_sym_simple_word), (244, tcl_sym_simple_word), (245,
      tcl_sym_simple_word), (247, tcl_sym_simple_word), (289, tcl_sym_simple_word), (306,
      tcl_sym_simple_word)]),
     (492, [(18, tcl_sym__command)]),
     (493, [(1, tcl_anon_sym_DOLLAR), (2, tcl_anon_sym_DOLLAR), (3, tcl_anon_sym_DOLLAR), (4,
      tcl_anon_sym_DOLLAR), (5, tcl_anon_sym_DOLLAR), (6, tcl_anon_sym_DOLLAR), (7,
      tcl_anon_sym_DOLLAR), (8, tcl_anon_sym_DOLLAR), (9, tcl_anon_sym_DOLLAR), (10,
      tcl_anon_sym_DOLLAR), (11, tcl_anon_sym_DOLLAR), (12, tcl_anon_sym_DOLLAR), (13,
      tcl_anon_sym_DOLLAR), (14, tcl_anon_sym_DOLLAR), (15, tcl_anon_sym_DOLLAR), (16,
      tcl_anon_sym_DOLLAR), (17, tcl_anon_sym_DOLLAR), (18, tcl_anon_sym_DOLLAR), (19,
      tcl_anon_sym_DOLLAR), (96, tcl_anon_sym_DOLLAR), (97, tcl_anon_sym_DOLLAR), (98,
      tcl_anon_sym_DOLLAR), (99, tcl_anon_sym_DOLLAR), (109, tcl_anon_sym_DOLLAR), (119,
      tcl_anon_sym_DOLLAR), (121, tcl_anon_sym_DOLLAR), (129, tcl_anon_sym_DOLLAR), (138,
      tcl_anon_sym_DOLLAR), (141, tcl_anon_sym_DOLLAR), (180, tcl_anon_sym_DOLLAR), (220,
      tcl_anon_sym_DOLLAR), (239, tcl_anon_sym_DOLLAR), (251, tcl_anon_sym_DOLLAR), (334,
      tcl_anon_sym_DOLLAR), (389, tcl_anon_sym_DOLLAR)]),
     (494, [(409, tcl_sym_array_index)]),
     (495, [(492, tcl_aux_sym_braced_word_repeat2)]),
     (496, [(13, tcl_anon_sym_RBRACE)]),
     (497, [(193, tcl_anon_sym_DOLLAR), (195, tcl_anon_sym_DOLLAR), (203, tcl_anon_sym_DOLLAR),
      (209, tcl_anon_sym_DOLLAR), (375, tcl_anon_sym_DOLLAR)]),
     (498, [(100, tcl_sym_simple_word), (100, tcl_sym_escaped_character), (100,
      tcl_sym_variable_substitution), (100, tcl_sym_braced_word_simple), (100,
      tcl_sym_quoted_word), (100, tcl_sym_command_substitution), (113, tcl_sym_simple_word), (113,
      tcl_sym_escaped_character), (113, tcl_sym_variable_substitution), (113,
      tcl_sym_braced_word_simple), (113, tcl_sym_quoted_word), (113,
      tcl_sym_command_substitution), (114, tcl_sym_simple_word), (114, tcl_sym_escaped_character),
      (114, tcl_sym_variable_substitution), (114, tcl_sym_braced_word_simple), (114,
      tcl_sym_quoted_word), (114, tcl_sym_command_substitution)]),
     (499, [(341, tcl_anon_sym_DOLLAR), (345, tcl_anon_sym_DOLLAR), (347, tcl_anon_sym_DOLLAR),
      (352, tcl_anon_sym_DOLLAR), (353, tcl_anon_sym_DOLLAR), (354, tcl_anon_sym_DOLLAR), (355,
      tcl_anon_sym_DOLLAR), (356, tcl_anon_sym_DOLLAR), (357, tcl_anon_sym_DOLLAR), (358,
      tcl_anon_sym_DOLLAR), (359, tcl_anon_sym_DOLLAR), (370, tcl_anon_sym_DOLLAR), (373,
      tcl_anon_sym_DOLLAR), (376, tcl_anon_sym_DOLLAR), (385, tcl_anon_sym_DOLLAR), (390,
      tcl_anon_sym_DOLLAR), (393, tcl_anon_sym_DOLLAR), (395, tcl_anon_sym_DOLLAR), (396,
      tcl_anon_sym_DOLLAR)]),
     (500, [(125, tcl_anon_sym_DOLLAR), (126, tcl_anon_sym_DOLLAR), (128, tcl_anon_sym_DOLLAR),
      (130, tcl_anon_sym_DOLLAR), (131, tcl_anon_sym_DOLLAR), (134, tcl_anon_sym_DOLLAR), (135,
      tcl_anon_sym_DOLLAR), (136, tcl_anon_sym_DOLLAR), (137, tcl_anon_sym_DOLLAR), (140,
      tcl_anon_sym_DOLLAR), (143, tcl_anon_sym_DOLLAR), (301, tcl_anon_sym_DOLLAR)]),
     (501, [(73, tcl_anon_sym_DOLLAR), (74, tcl_anon_sym_DOLLAR), (75, tcl_anon_sym_DOLLAR), (76,
      tcl_anon_sym_DOLLAR), (77, tcl_anon_sym_DOLLAR), (78, tcl_anon_sym_DOLLAR), (79,
      tcl_anon_sym_DOLLAR), (80, tcl_anon_sym_DOLLAR), (81, tcl_anon_sym_DOLLAR), (82,
      tcl_anon_sym_DOLLAR), (83, tcl_anon_sym_DOLLAR), (84, tcl_anon_sym_DOLLAR), (85,
      tcl_anon_sym_DOLLAR), (86, tcl_anon_sym_DOLLAR), (87, tcl_anon_sym_DOLLAR), (88,
      tcl_anon_sym_DOLLAR), (89, tcl_anon_sym_DOLLAR), (90, tcl_anon_sym_DOLLAR), (91,
      tcl_anon_sym_DOLLAR), (92, tcl_anon_sym_DOLLAR), (93, tcl_anon_sym_DOLLAR), (94,
      tcl_anon_sym_DOLLAR), (95, tcl_anon_sym_DOLLAR), (199, tcl_anon_sym_DOLLAR)]),
     (502, [(147, tcl_anon_sym_DOLLAR), (154, tcl_anon_sym_DOLLAR), (164, tcl_anon_sym_DOLLAR),
      (165, tcl_anon_sym_DOLLAR), (168, tcl_anon_sym_DOLLAR), (233, tcl_anon_sym_DOLLAR), (249,
      tcl_anon_sym_DOLLAR), (250, tcl_anon_sym_DOLLAR), (255, tcl_anon_sym_DOLLAR), (282,
      tcl_anon_sym_DOLLAR), (348, tcl_anon_sym_DOLLAR)]),
     (503, [(110, tcl_anon_sym_DOLLAR), (146, tcl_anon_sym_DOLLAR), (149, tcl_anon_sym_DOLLAR),
      (152, tcl_anon_sym_DOLLAR), (153, tcl_anon_sym_DOLLAR), (157, tcl_anon_sym_DOLLAR), (158,
      tcl_anon_sym_DOLLAR), (160, tcl_anon_sym_DOLLAR), (196, tcl_anon_sym_DOLLAR), (200,
      tcl_anon_sym_DOLLAR), (206, tcl_anon_sym_DOLLAR), (234, tcl_anon_sym_DOLLAR), (238,
      tcl_anon_sym_DOLLAR), (241, tcl_anon_sym_DOLLAR), (243, tcl_anon_sym_DOLLAR), (244,
      tcl_anon_sym_DOLLAR), (245, tcl_anon_sym_DOLLAR), (247, tcl_anon_sym_DOLLAR), (263,
      tcl_anon_sym_DOLLAR), (266, tcl_anon_sym_DOLLAR), (268, tcl_anon_sym_DOLLAR), (270,
      tcl_anon_sym_DOLLAR), (272, tcl_anon_sym_DOLLAR), (274, tcl_anon_sym_DOLLAR), (275,
      tcl_anon_sym_DOLLAR), (277, tcl_anon_sym_DOLLAR), (278, tcl_anon_sym_DOLLAR), (279,
      tcl_anon_sym_DOLLAR), (280, tcl_anon_sym_DOLLAR), (289, tcl_anon_sym_DOLLAR), (297,
      tcl_anon_sym_DOLLAR), (306, tcl_anon_sym_DOLLAR), (371, tcl_anon_sym_DOLLAR)]),
     (504, [(412, tcl_sym_array_index)]),
     (505, [(483, tcl_sym__id_immediate)]),
     (506, [(623, tcl_anon_sym_RBRACK)]),
     (507, [(624, tcl_sym__ident_imm)]),
     (508, [(605, tcl_sym__ident_imm)]),
     (509, [(461, tcl_aux_sym_braced_word_repeat2)]),
     (510, [(471, tcl_aux_sym_arguments_repeat1), (472, tcl_aux_sym_arguments_repeat1), (510,
      tcl_aux_sym_arguments_repeat1)]),
     (511, [(173, tcl_sym__concat_word), (173, tcl_sym_braced_word)]),
     (512, [(689, tcl_anon_sym_RBRACE)]),
     (513, [(18, tcl_anon_sym_RBRACE)]),
     (514, [(110, tcl_sym_simple_word), (110, tcl_sym_escaped_character), (110,
      tcl_sym_variable_substitution), (110, tcl_sym_braced_word_simple), (110,
      tcl_sym_quoted_word), (110, tcl_sym_command_substitution), (196, tcl_sym_simple_word), (196,
      tcl_sym_escaped_character), (196, tcl_sym_variable_substitution), (196,
      tcl_sym_braced_word_simple), (196, tcl_sym_quoted_word), (196,
      tcl_sym_command_substitution), (200, tcl_sym_simple_word), (200, tcl_sym_escaped_character),
      (200, tcl_sym_variable_substitution), (200, tcl_sym_braced_word_simple), (200,
      tcl_sym_quoted_word), (200, tcl_sym_command_substitution), (206, tcl_sym_simple_word), (206,
      tcl_sym_escaped_character), (206, tcl_sym_variable_substitution), (206,
      tcl_sym_braced_word_simple), (206, tcl_sym_quoted_word), (206,
      tcl_sym_command_substitution), (263, tcl_sym_simple_word), (263, tcl_sym_escaped_character),
      (263, tcl_sym_variable_substitution), (263, tcl_sym_braced_word_simple), (263,
      tcl_sym_quoted_word), (263, tcl_sym_command_substitution), (266, tcl_sym_simple_word), (266,
      tcl_sym_escaped_character), (266, tcl_sym_variable_substitution), (266,
      tcl_sym_braced_word_simple), (266, tcl_sym_quoted_word), (266,
      tcl_sym_command_substitution), (268, tcl_sym_simple_word), (268, tcl_sym_escaped_character),
      (268, tcl_sym_variable_substitution), (268, tcl_sym_braced_word_simple), (268,
      tcl_sym_quoted_word), (268, tcl_sym_command_substitution), (270, tcl_sym_simple_word), (270,
      tcl_sym_escaped_character), (270, tcl_sym_variable_substitution), (270,
      tcl_sym_braced_word_simple), (270, tcl_sym_quoted_word), (270,
      tcl_sym_command_substitution), (272, tcl_sym_simple_word), (272, tcl_sym_escaped_character),
      (272, tcl_sym_variable_substitution), (272, tcl_sym_braced_word_simple), (272,
      tcl_sym_quoted_word), (272, tcl_sym_command_substitution), (274, tcl_sym_simple_word), (274,
      tcl_sym_escaped_character), (274, tcl_sym_variable_substitution), (274,
      tcl_sym_braced_word_simple), (274, tcl_sym_quoted_word), (274,
      tcl_sym_command_substitution), (275, tcl_sym_simple_word), (275, tcl_sym_escaped_character),
      (275, tcl_sym_variable_substitution), (275, tcl_sym_braced_word_simple), (275,
      tcl_sym_quoted_word), (275, tcl_sym_command_substitution), (277, tcl_sym_simple_word), (277,
      tcl_sym_escaped_character), (277, tcl_sym_variable_substitution), (277,
      tcl_sym_braced_word_simple), (277, tcl_sym_quoted_word), (277,
      tcl_sym_command_substitution), (278, tcl_sym_simple_word), (278, tcl_sym_escaped_character),
      (278, tcl_sym_variable_substitution), (278, tcl_sym_braced_word_simple), (278,
      tcl_sym_quoted_word), (278, tcl_sym_command_substitution), (279, tcl_sym_simple_word), (279,
      tcl_sym_escaped_character), (279, tcl_sym_variable_substitution), (279,
      tcl_sym_braced_word_simple), (279, tcl_sym_quoted_word), (279,
      tcl_sym_command_substitution), (280, tcl_sym_simple_word), (280, tcl_sym_escaped_character),
      (280, tcl_sym_variable_substitution), (280, tcl_sym_braced_word_simple), (280,
      tcl_sym_quoted_word), (280, tcl_sym_command_substitution)]),
     (515, [(531, tcl_aux_sym__concat_word_repeat1)]),
     (516, [(135, tcl_anon_sym_RBRACE)]),
     (517, [(514, tcl_aux_sym__word_simple_repeat1)]),
     (518, [(517, tcl_aux_sym__word_simple_repeat1), (518, tcl_aux_sym__word_simple_repeat1)]),
     (519, [(295, tcl_sym_simple_word), (295, tcl_sym_escaped_character), (295,
      tcl_sym_variable_substitution), (295, tcl_sym_braced_word_simple), (295,
      tcl_sym_quoted_word), (295, tcl_sym_command_substitution)]),
     (520, [(20, tcl_anon_sym_set), (21, tcl_anon_sym_set), (22, tcl_anon_sym_set), (23,
      tcl_anon_sym_set), (24, tcl_anon_sym_set), (25, tcl_anon_sym_set), (26, tcl_anon_sym_set),
      (27, tcl_anon_sym_set), (28, tcl_anon_sym_set), (29, tcl_anon_sym_set)]),
     (521, [(193, tcl_sym_escaped_character), (193, tcl_sym_variable_substitution), (193,
      tcl_sym_quoted_word), (193, tcl_sym_command_substitution), (195, tcl_sym_escaped_character),
      (195, tcl_sym_variable_substitution), (195, tcl_sym_quoted_word), (195,
      tcl_sym_command_substitution), (203, tcl_sym_escaped_character), (203,
      tcl_sym_variable_substitution), (203, tcl_sym_quoted_word), (203,
      tcl_sym_command_substitution), (209, tcl_sym_escaped_character), (209,
      tcl_sym_variable_substitution), (209, tcl_sym_quoted_word), (209,
      tcl_sym_command_substitution)]),
     (522, [(9, tcl_anon_sym_RBRACE), (481, tcl_anon_sym_RBRACE)]),
     (523, [(440, tcl_sym_array_index)]),
     (524, [(147, tcl_sym__concat_word), (147, tcl_sym_braced_word)]),
     (525, [(8, tcl_anon_sym_RBRACE)]),
     (526, [(17, tcl_anon_sym_RBRACE)]),
     (527, [(480, tcl_anon_sym_RBRACE)]),
     (528, [(233, tcl_sym__concat_word), (233, tcl_sym_braced_word)]),
     (529, [(371, tcl_sym_escaped_character), (371, tcl_sym_variable_substitution), (371,
      tcl_sym_quoted_word), (371, tcl_sym_command_substitution), (375, tcl_sym_escaped_character),
      (375, tcl_sym_variable_substitution), (375, tcl_sym_quoted_word), (375,
      tcl_sym_command_substitution)]),
     (530, [(455, tcl_aux_sym__concat_word_repeat1), (521, tcl_aux_sym__concat_word_repeat1)]),
     (531, [(455, tcl_sym_array_index)]),
     (532, [(1, tcl_anon_sym_set), (2, tcl_anon_sym_set), (3, tcl_anon_sym_set), (4,
      tcl_anon_sym_set), (5, tcl_anon_sym_set), (6, tcl_anon_sym_set), (7, tcl_anon_sym_set), (8,
      tcl_anon_sym_set), (9, tcl_anon_sym_set), (10, tcl_anon_sym_set), (11, tcl_anon_sym_set),
      (12, tcl_anon_sym_set), (13, tcl_anon_sym_set), (14, tcl_anon_sym_set), (15,
      tcl_anon_sym_set), (16, tcl_anon_sym_set), (17, tcl_anon_sym_set), (18, tcl_anon_sym_set),
      (19, tcl_anon_sym_set)]),
     (533, [(515, tcl_aux_sym__concat_word_repeat1), (530, tcl_aux_sym__concat_word_repeat1),
      (533, tcl_aux_sym__concat_word_repeat1)]),
     (534, [(134, tcl_anon_sym_RBRACE)]),
     (535, [(505, tcl_sym_array_index)]),
     (536, [(281, tcl_sym__concat_word), (281, tcl_sym_braced_word)]),
     (537, [(109, tcl_sym_word_list)]),
     (538, [(67, tcl_anon_sym_RPAREN)]),
     (539, [(380, tcl_sym_else)]),
     (540, [(172, tcl_sym__expr_atom_no_brace)]),
     (541, [(164, tcl_sym__concat_word), (164, tcl_sym_braced_word)])]"

definition tcl_incoming_9 :: incoming where
  "tcl_incoming_9 =
    [(542, [(165, tcl_sym__concat_word), (165, tcl_sym_braced_word), (249, tcl_sym__concat_word),
      (249, tcl_sym_braced_word)]),
     (543, [(250, tcl_sym__concat_word), (250, tcl_sym_braced_word)]),
     (544, [(219, tcl_sym__concat_word), (219, tcl_sym_braced_word)]),
     (545, [(512, tcl_sym_array_index)]),
     (546, [(114, tcl_sym__word_simple)]),
     (547, [(155, tcl_sym__concat_word), (155, tcl_sym_braced_word)]),
     (548, [(626, tcl_anon_sym_RPAREN)]),
     (549, [(170, tcl_sym__concat_word), (170, tcl_sym_braced_word)]),
     (550, [(169, tcl_sym__concat_word), (169, tcl_sym_braced_word)]),
     (551, [(178, tcl_sym__concat_word)]),
     (552, [(153, tcl_sym__concat_word), (153, tcl_sym_braced_word), (168, tcl_sym__concat_word),
      (168, tcl_sym_braced_word)]),
     (553, [(100, tcl_sym__word_simple)]),
     (554, [(383, tcl_sym_else)]),
     (555, [(1, tcl_anon_sym_foreach), (2, tcl_anon_sym_foreach), (3, tcl_anon_sym_foreach), (4,
      tcl_anon_sym_foreach), (5, tcl_anon_sym_foreach), (6, tcl_anon_sym_foreach), (7,
      tcl_anon_sym_foreach), (8, tcl_anon_sym_foreach), (9, tcl_anon_sym_foreach), (10,
      tcl_anon_sym_foreach), (11, tcl_anon_sym_foreach), (12, tcl_anon_sym_foreach), (13,
      tcl_anon_sym_foreach), (14, tcl_anon_sym_foreach), (15, tcl_anon_sym_foreach), (16,
      tcl_anon_sym_foreach), (17, tcl_anon_sym_foreach), (18, tcl_anon_sym_foreach), (19,
      tcl_anon_sym_foreach)]),
     (556, [(148, tcl_sym__concat_word)]),
     (557, [(193, tcl_sym__concat_word), (193, tcl_sym_braced_word)]),
     (558, [(470, tcl_sym_finally)]),
     (559, [(209, tcl_sym__concat_word), (209, tcl_sym_braced_word)]),
     (560, [(167, tcl_sym__concat_word), (167, tcl_sym_braced_word)]),
     (561, [(486, tcl_sym_finally)]),
     (562, [(97, tcl_sym_word_list)]),
     (563, [(192, tcl_sym__concat_word), (192, tcl_sym_braced_word)]),
     (564, [(66, tcl_anon_sym_RBRACE)]),
     (565, [(3, tcl_sym__command), (4, tcl_sym__command), (6, tcl_sym__command), (7,
      tcl_sym__command), (8, tcl_sym__command), (9, tcl_sym__command), (10, tcl_sym__command),
      (11, tcl_sym__command), (12, tcl_sym__command), (13, tcl_sym__command), (14,
      tcl_sym__command)]),
     (566, [(297, tcl_sym_simple_word), (297, tcl_sym_escaped_character), (297,
      tcl_sym_variable_substitution), (297, tcl_sym_braced_word_simple), (297,
      tcl_sym_quoted_word), (297, tcl_sym_command_substitution)]),
     (567, [(113, tcl_sym__word_simple)]),
     (568, [(401, tcl_anon_sym_RBRACE)]),
     (569, [(223, tcl_sym__concat_word), (223, tcl_sym_braced_word)]),
     (570, [(449, tcl_sym_elseif), (452, tcl_sym_elseif), (453, tcl_sym_elseif), (454,
      tcl_sym_elseif), (479, tcl_sym_elseif)]),
     (571, [(172, tcl_sym_expr)]),
     (572, [(195, tcl_sym__concat_word), (195, tcl_sym_braced_word)]),
     (573, [(229, tcl_sym__concat_word), (229, tcl_sym_braced_word)]),
     (574, [(203, tcl_sym__concat_word), (203, tcl_sym_braced_word)]),
     (575, [(456, tcl_sym_finally)]),
     (576, [(707, tcl_anon_sym_error)]),
     (577, [(708, tcl_anon_sym_error)]),
     (578, [(96, tcl_sym_word_list)]),
     (579, [(511, tcl_sym_finally)]),
     (580, [(467, tcl_sym_simple_word), (469, tcl_sym_simple_word), (471, tcl_sym_simple_word),
      (472, tcl_sym_simple_word), (510, tcl_sym_simple_word)]),
     (581, [(390, tcl_anon_sym_DQUOTE)]),
     (582, [(457, tcl_sym_finally)]),
     (583, [(175, tcl_sym__concat_word), (175, tcl_sym_braced_word)]),
     (584, [(136, tcl_anon_sym_RBRACE)]),
     (585, [(257, tcl_sym__concat_word), (257, tcl_sym_braced_word)]),
     (586, [(210, tcl_sym__concat_word), (210, tcl_sym_braced_word)]),
     (587, [(360, tcl_sym_else)]),
     (588, [(393, tcl_anon_sym_DQUOTE)]),
     (589, [(362, tcl_sym_else)]),
     (590, [(680, tcl_anon_sym_RBRACK)]),
     (591, [(137, tcl_anon_sym_RBRACE)]),
     (592, [(654, tcl_anon_sym_RBRACE)]),
     (593, [(20, tcl_anon_sym_foreach), (21, tcl_anon_sym_foreach), (22, tcl_anon_sym_foreach),
      (23, tcl_anon_sym_foreach), (24, tcl_anon_sym_foreach), (25, tcl_anon_sym_foreach), (26,
      tcl_anon_sym_foreach), (27, tcl_anon_sym_foreach), (28, tcl_anon_sym_foreach), (29,
      tcl_anon_sym_foreach)]),
     (594, [(241, tcl_sym__concat_word), (241, tcl_sym_braced_word), (255, tcl_sym__concat_word),
      (255, tcl_sym_braced_word)]),
     (595, [(146, tcl_sym_escaped_character), (146, tcl_sym_variable_substitution), (146,
      tcl_sym_quoted_word), (146, tcl_sym_command_substitution), (149, tcl_sym_escaped_character),
      (149, tcl_sym_variable_substitution), (149, tcl_sym_quoted_word), (149,
      tcl_sym_command_substitution), (152, tcl_sym_escaped_character), (152,
      tcl_sym_variable_substitution), (152, tcl_sym_quoted_word), (152,
      tcl_sym_command_substitution), (153, tcl_sym_escaped_character), (153,
      tcl_sym_variable_substitution), (153, tcl_sym_quoted_word), (153,
      tcl_sym_command_substitution), (157, tcl_sym_escaped_character), (157,
      tcl_sym_variable_substitution), (157, tcl_sym_quoted_word), (157,
      tcl_sym_command_substitution), (158, tcl_sym_escaped_character), (158,
      tcl_sym_variable_substitution), (158, tcl_sym_quoted_word), (158,
      tcl_sym_command_substitution), (160, tcl_sym_escaped_character), (160,
      tcl_sym_variable_substitution), (160, tcl_sym_quoted_word), (160,
      tcl_sym_command_substitution), (234, tcl_sym_escaped_character), (234,
      tcl_sym_variable_substitution), (234, tcl_sym_quoted_word), (234,
      tcl_sym_command_substitution), (238, tcl_sym_escaped_character), (238,
      tcl_sym_variable_substitution), (238, tcl_sym_quoted_word), (238,
      tcl_sym_command_substitution), (241, tcl_sym_escaped_character), (241,
      tcl_sym_variable_substitution), (241, tcl_sym_quoted_word), (241,
      tcl_sym_command_substitution), (243, tcl_sym_escaped_character), (243,
      tcl_sym_variable_substitution), (243, tcl_sym_quoted_word), (243,
      tcl_sym_command_substitution), (244, tcl_sym_escaped_character), (244,
      tcl_sym_variable_substitution), (244, tcl_sym_quoted_word), (244,
      tcl_sym_command_substitution), (245, tcl_sym_escaped_character), (245,
      tcl_sym_variable_substitution), (245, tcl_sym_quoted_word), (245,
      tcl_sym_command_substitution), (247, tcl_sym_escaped_character), (247,
      tcl_sym_variable_substitution), (247, tcl_sym_quoted_word), (247,
      tcl_sym_command_substitution), (289, tcl_sym_escaped_character), (289,
      tcl_sym_variable_substitution), (289, tcl_sym_quoted_word), (289,
      tcl_sym_command_substitution), (306, tcl_sym_escaped_character), (306,
      tcl_sym_variable_substitution), (306, tcl_sym_quoted_word), (306,
      tcl_sym_command_substitution)]),
     (596, [(659, tcl_anon_sym_error)]),
     (597, [(491, tcl_aux_sym__concat_word_repeat1), (595, tcl_aux_sym__concat_word_repeat1)]),
     (598, [(491, tcl_sym_array_index)]),
     (599, [(597, tcl_aux_sym__concat_word_repeat1), (599, tcl_aux_sym__concat_word_repeat1),
      (600, tcl_aux_sym__concat_word_repeat1)]),
     (600, [(598, tcl_aux_sym__concat_word_repeat1)]),
     (601, [(611, tcl_anon_sym_error)])]"

definition tcl_incoming_10 :: incoming where
  "tcl_incoming_10 =
    [(602, [(1, tcl_sym__command), (2, tcl_sym__command), (5, tcl_sym__command)]),
     (603, [(29, tcl_sym__command)]),
     (604, [(478, tcl_sym__ns_delim)]),
     (605, [(404, tcl_sym__ns_delim), (433, tcl_sym__ns_delim), (435, tcl_sym__ns_delim), (436,
      tcl_sym__ns_delim), (437, tcl_sym__ns_delim)]),
     (606, [(682, tcl_aux_sym_variable_substitution_token1)]),
     (607, [(102, tcl_sym_word_list)]),
     (608, [(200, tcl_sym__word_simple)]),
     (609, [(270, tcl_sym__word_simple)]),
     (610, [(247, tcl_sym__concat_word), (247, tcl_sym_braced_word)]),
     (611, [(457, tcl_anon_sym_on)]),
     (612, [(454, tcl_sym_else)]),
     (613, [(497, tcl_sym__ns_delim)]),
     (614, [(532, tcl_anon_sym_COLON_COLON2)]),
     (615, [(27, tcl_sym__command)]),
     (616, [(151, tcl_sym__ns_delim), (166, tcl_sym__ns_delim), (171, tcl_sym__ns_delim), (191,
      tcl_sym__ns_delim), (201, tcl_sym__ns_delim)]),
     (617, [(685, tcl_aux_sym_variable_substitution_token1)]),
     (618, [(272, tcl_sym__word_simple)]),
     (619, [(26, tcl_sym__command)]),
     (620, [(238, tcl_sym__concat_word), (238, tcl_sym_braced_word)]),
     (621, [(499, tcl_sym__ns_delim)]),
     (622, [(263, tcl_sym__word_simple)]),
     (623, [(28, tcl_sym__command)]),
     (624, [(397, tcl_sym__ns_delim), (407, tcl_sym__ns_delim), (408, tcl_sym__ns_delim), (410,
      tcl_sym__ns_delim), (413, tcl_sym__ns_delim)]),
     (625, [(688, tcl_aux_sym_variable_substitution_token1)]),
     (626, [(274, tcl_sym__word_simple)]),
     (627, [(157, tcl_sym__concat_word), (157, tcl_sym_braced_word)]),
     (628, [(541, tcl_sym_finally)]),
     (629, [(500, tcl_sym__ns_delim)]),
     (630, [(528, tcl_sym_finally)]),
     (631, [(660, tcl_aux_sym_variable_substitution_token1)]),
     (632, [(311, tcl_sym__ns_delim), (314, tcl_sym__ns_delim), (322, tcl_sym__ns_delim), (323,
      tcl_sym__ns_delim), (330, tcl_sym__ns_delim)]),
     (633, [(691, tcl_aux_sym_variable_substitution_token1)]),
     (634, [(275, tcl_sym__word_simple)]),
     (635, [(105, tcl_sym_word_list)]),
     (636, [(71, tcl_anon_sym_RBRACE)]),
     (637, [(501, tcl_sym__ns_delim)]),
     (638, [(116, tcl_sym__ns_delim), (117, tcl_sym__ns_delim), (139, tcl_sym__ns_delim), (142,
      tcl_sym__ns_delim), (145, tcl_sym__ns_delim)]),
     (639, [(20, tcl_sym__command)]),
     (640, [(216, tcl_sym__ns_delim), (237, tcl_sym__ns_delim), (254, tcl_sym__ns_delim), (256,
      tcl_sym__ns_delim), (261, tcl_sym__ns_delim)]),
     (641, [(694, tcl_aux_sym_variable_substitution_token1)]),
     (642, [(277, tcl_sym__word_simple)]),
     (643, [(158, tcl_sym__concat_word), (158, tcl_sym_braced_word)]),
     (644, [(502, tcl_sym__ns_delim), (503, tcl_sym__ns_delim)]),
     (645, [(21, tcl_sym__command)]),
     (646, [(181, tcl_sym__ns_delim), (188, tcl_sym__ns_delim), (189, tcl_sym__ns_delim), (194,
      tcl_sym__ns_delim), (197, tcl_sym__ns_delim)]),
     (647, [(697, tcl_aux_sym_variable_substitution_token1)]),
     (648, [(278, tcl_sym__word_simple)]),
     (649, [(465, tcl_sym__ns_delim)]),
     (650, [(30, tcl_sym__ns_delim), (31, tcl_sym__ns_delim), (32, tcl_sym__ns_delim), (33,
      tcl_sym__ns_delim), (34, tcl_sym__ns_delim)]),
     (651, [(279, tcl_sym__word_simple)]),
     (652, [(213, tcl_sym__ns_delim), (214, tcl_sym__ns_delim), (215, tcl_sym__ns_delim), (217,
      tcl_sym__ns_delim), (222, tcl_sym__ns_delim)]),
     (653, [(280, tcl_sym__word_simple)]),
     (654, [(401, tcl_sym__argument_word)]),
     (655, [(675, tcl_aux_sym_variable_substitution_token1)]),
     (656, [(542, tcl_sym_finally)]),
     (657, [(449, tcl_sym_else)]),
     (658, [(520, tcl_anon_sym_COLON_COLON2)]),
     (659, [(456, tcl_anon_sym_on)]),
     (660, [(465, tcl_anon_sym_LBRACE)]),
     (661, [(543, tcl_sym_finally)])]"

definition tcl_incoming_11 :: incoming where
  "tcl_incoming_11 =
    [(662, [(266, tcl_sym__word_simple)]),
     (663, [(25, tcl_sym__command)]),
     (664, [(467, tcl_anon_sym_LBRACE), (469, tcl_anon_sym_LBRACE), (471, tcl_anon_sym_LBRACE),
      (472, tcl_anon_sym_LBRACE), (510, tcl_anon_sym_LBRACE)]),
     (665, [(156, tcl_sym_simple_word), (163, tcl_sym_simple_word), (176, tcl_sym_simple_word),
      (184, tcl_sym_simple_word), (185, tcl_sym_simple_word), (186, tcl_sym_simple_word), (190,
      tcl_sym_simple_word)]),
     (666, [(705, tcl_anon_sym_LBRACE)]),
     (667, [(243, tcl_sym__concat_word), (243, tcl_sym_braced_word)]),
     (668, [(244, tcl_sym__concat_word), (244, tcl_sym_braced_word)]),
     (669, [(666, tcl_aux_sym_variable_substitution_token1)]),
     (670, [(1, tcl_sym_source_file)]),
     (671, [(199, tcl_sym__expr_atom_no_brace)]),
     (672, [(115, tcl_sym_word_list)]),
     (673, [(483, tcl_sym__ns_delim)]),
     (674, [(101, tcl_sym__ns_delim), (103, tcl_sym__ns_delim), (104, tcl_sym__ns_delim), (106,
      tcl_sym__ns_delim), (107, tcl_sym__ns_delim)]),
     (675, [(478, tcl_anon_sym_LBRACE)]),
     (676, [(122, tcl_sym__ns_delim), (123, tcl_sym__ns_delim), (124, tcl_sym__ns_delim), (133,
      tcl_sym__ns_delim), (144, tcl_sym__ns_delim)]),
     (677, [(714, tcl_anon_sym_LBRACE)]),
     (678, [(110, tcl_sym__word_simple)]),
     (679, [(483, tcl_anon_sym_LBRACE)]),
     (680, [(24, tcl_sym__command)]),
     (681, [(146, tcl_sym__concat_word), (146, tcl_sym_braced_word)]),
     (682, [(489, tcl_anon_sym_LBRACE)]),
     (683, [(23, tcl_sym__command)]),
     (684, [(245, tcl_sym__concat_word), (245, tcl_sym_braced_word)]),
     (685, [(497, tcl_anon_sym_LBRACE), (503, tcl_anon_sym_LBRACE)]),
     (686, [(196, tcl_sym__word_simple)]),
     (687, [(205, tcl_sym__ns_delim), (265, tcl_sym__ns_delim), (267, tcl_sym__ns_delim), (269,
      tcl_sym__ns_delim), (276, tcl_sym__ns_delim)]),
     (688, [(499, tcl_anon_sym_LBRACE)]),
     (689, [(679, tcl_aux_sym_variable_substitution_token1)]),
     (690, [(696, tcl_aux_sym_variable_substitution_token1)]),
     (691, [(500, tcl_anon_sym_LBRACE)]),
     (692, [(234, tcl_sym__concat_word), (234, tcl_sym_braced_word)]),
     (693, [(160, tcl_sym__concat_word), (160, tcl_sym_braced_word)]),
     (694, [(501, tcl_anon_sym_LBRACE)]),
     (695, [(452, tcl_sym_else)]),
     (696, [(493, tcl_anon_sym_LBRACE)]),
     (697, [(502, tcl_anon_sym_LBRACE)]),
     (698, [(268, tcl_sym__word_simple)]),
     (699, [(199, tcl_sym_expr)]),
     (700, [(22, tcl_sym__command)]),
     (701, [(149, tcl_sym__concat_word), (149, tcl_sym_braced_word)]),
     (702, [(493, tcl_sym__ns_delim)]),
     (703, [(289, tcl_sym__concat_word)]),
     (704, [(172, tcl_sym_simple_word)]),
     (705, [(520, tcl_anon_sym_DOLLAR)]),
     (706, [(152, tcl_sym__concat_word), (152, tcl_sym_braced_word)]),
     (707, [(524, tcl_anon_sym_on)]),
     (708, [(528, tcl_anon_sym_on)]),
     (709, [(677, tcl_aux_sym_variable_substitution_token1)]),
     (710, [(306, tcl_sym__concat_word)]),
     (711, [(489, tcl_sym__ns_delim)]),
     (712, [(453, tcl_sym_else)]),
     (713, [(524, tcl_sym_finally)]),
     (714, [(532, tcl_anon_sym_DOLLAR)]),
     (715, [(73, tcl_sym_simple_word), (74, tcl_sym_simple_word), (75, tcl_sym_simple_word), (76,
      tcl_sym_simple_word), (77, tcl_sym_simple_word), (78, tcl_sym_simple_word), (79,
      tcl_sym_simple_word), (80, tcl_sym_simple_word), (81, tcl_sym_simple_word), (82,
      tcl_sym_simple_word), (83, tcl_sym_simple_word), (84, tcl_sym_simple_word), (85,
      tcl_sym_simple_word), (86, tcl_sym_simple_word), (87, tcl_sym_simple_word), (88,
      tcl_sym_simple_word), (89, tcl_sym_simple_word), (90, tcl_sym_simple_word), (91,
      tcl_sym_simple_word), (92, tcl_sym_simple_word), (93, tcl_sym_simple_word), (94,
      tcl_sym_simple_word), (95, tcl_sym_simple_word), (199, tcl_sym_simple_word)]),
     (716, [(206, tcl_sym__word_simple)])]"

definition tcl_incoming :: incoming where
  "tcl_incoming = tcl_incoming_0 @ tcl_incoming_1 @ tcl_incoming_2 @ tcl_incoming_3 @
   tcl_incoming_4 @ tcl_incoming_5 @ tcl_incoming_6 @ tcl_incoming_7 @ tcl_incoming_8 @
   tcl_incoming_9 @ tcl_incoming_10 @ tcl_incoming_11"

text \<open>The reductions the states hold.\<close>

definition tcl_reductions_0 :: "(TSStateId \<times> TSSymbol \<times> nat) list" where
  "tcl_reductions_0 =
    [(1, tcl_sym_source_file, 0), (2, tcl_aux_sym_source_file_repeat1, 2),
     (5, tcl_sym_source_file, 1), (30, tcl_sym__id_immediate, 3),
     (31, tcl_aux_sym__id_immediate_repeat1, 2), (32, tcl_sym__id_immediate, 1),
     (33, tcl_sym__id_immediate, 2), (34, tcl_sym__id_immediate, 2),
     (35, tcl_aux_sym__id_immediate_repeat1, 2), (36, tcl_sym_variable_substitution, 2),
     (37, tcl_sym_variable_substitution, 4), (38, tcl_sym_array_index, 3),
     (39, tcl_sym__expr_atom_no_brace, 4), (40, tcl_sym_variable_substitution, 5),
     (41, tcl_sym_quoted_word, 2), (42, tcl_sym_quoted_word, 3),
     (43, tcl_sym_variable_substitution, 3), (44, tcl_sym_command_substitution, 3),
     (45, tcl_sym_ternary_expr, 5), (46, tcl_sym_binop_expr, 3),
     (47, tcl_sym_binop_expr, 3), (48, tcl_sym_binop_expr, 3),
     (49, tcl_sym_binop_expr, 3), (50, tcl_sym_binop_expr, 3),
     (51, tcl_sym_binop_expr, 3), (52, tcl_sym_binop_expr, 3),
     (53, tcl_sym_binop_expr, 3), (54, tcl_sym_binop_expr, 3),
     (55, tcl_sym_binop_expr, 3), (56, tcl_sym_binop_expr, 3),
     (57, tcl_sym_binop_expr, 3), (58, tcl_sym_braced_word_simple, 2),
     (59, tcl_sym_braced_word_simple, 3), (60, tcl_sym_unary_expr, 2),
     (61, tcl_sym__expr, 3), (62, tcl_sym_binop_expr, 3),
     (70, tcl_aux_sym_braced_word_repeat1, 2), (72, tcl_aux_sym_source_file_repeat1, 2),
     (96, tcl_sym_command, 2), (97, tcl_sym_command, 1),
     (98, tcl_sym_word_list, 1), (99, tcl_aux_sym_word_list_repeat1, 2),
     (100, tcl_sym_set, 2), (101, tcl_sym__id_immediate, 2),
     (102, tcl_sym_command, 2), (103, tcl_sym__id_immediate, 3),
     (104, tcl_aux_sym__id_immediate_repeat1, 2), (105, tcl_sym_command, 1),
     (106, tcl_sym__id_immediate, 1), (107, tcl_sym__id_immediate, 2),
     (108, tcl_sym__concat_word, 1), (110, tcl_sym_set, 2),
     (111, tcl_sym_word_list, 1), (112, tcl_aux_sym_word_list_repeat1, 2),
     (113, tcl_sym_set, 5), (114, tcl_sym_set, 3),
     (116, tcl_sym__id_immediate, 2), (117, tcl_aux_sym__id_immediate_repeat1, 2),
     (118, tcl_aux_sym__id_immediate_repeat1, 2), (119, tcl_aux_sym_regexp_repeat1, 2)]"

definition tcl_reductions_1 :: "(TSStateId \<times> TSSymbol \<times> nat) list" where
  "tcl_reductions_1 =
    [(120, tcl_sym_variable_substitution, 4), (121, tcl_sym_global, 2),
     (122, tcl_sym_id, 3), (123, tcl_sym_id, 2),
     (124, tcl_sym_id, 2), (127, tcl_aux_sym__concat_word_repeat1, 2),
     (128, tcl_aux_sym_braced_word_simple_repeat1, 2), (129, tcl_sym_regexp, 4),
     (132, tcl_sym_variable_substitution, 2), (133, tcl_sym_id, 1),
     (138, tcl_sym_global, 1), (139, tcl_sym__id_immediate, 1),
     (141, tcl_sym_regexp, 3), (142, tcl_sym__id_immediate, 2),
     (144, tcl_aux_sym__id_immediate_repeat1, 2), (145, tcl_sym__id_immediate, 3),
     (148, tcl_sym_catch, 3), (151, tcl_aux_sym__id_immediate_repeat1, 2),
     (159, tcl_aux_sym__concat_word_repeat1, 2), (161, tcl_sym__concat_word, 3),
     (162, tcl_sym__concat_word, 1), (166, tcl_sym__id_immediate, 1),
     (171, tcl_sym__id_immediate, 2), (178, tcl_sym_catch, 2),
     (181, tcl_sym__id_immediate, 1), (182, tcl_sym__concat_word, 2),
     (183, tcl_sym__concat_word, 2), (188, tcl_sym__id_immediate, 2),
     (189, tcl_sym__id_immediate, 2), (191, tcl_sym__id_immediate, 3),
     (194, tcl_sym__id_immediate, 3), (196, tcl_sym_set, 3),
     (197, tcl_aux_sym__id_immediate_repeat1, 2), (198, tcl_sym__concat_word, 1),
     (200, tcl_sym_set, 5), (201, tcl_sym__id_immediate, 2),
     (204, tcl_aux_sym__concat_word_repeat1, 2), (205, tcl_aux_sym__id_immediate_repeat1, 2),
     (208, tcl_sym_variable_substitution, 3), (211, tcl_sym_variable_substitution, 5),
     (213, tcl_sym__id_immediate, 1), (214, tcl_sym__id_immediate, 2),
     (215, tcl_sym__id_immediate, 2), (216, tcl_aux_sym__id_immediate_repeat1, 2),
     (217, tcl_sym__id_immediate, 3), (222, tcl_aux_sym__id_immediate_repeat1, 2),
     (226, tcl_sym_global, 1), (227, tcl_sym__concat_word, 1),
     (230, tcl_sym_global, 2), (232, tcl_sym_quoted_word, 3),
     (235, tcl_aux_sym__concat_word_repeat1, 2), (236, tcl_sym_variable_substitution, 2),
     (237, tcl_sym_id, 1), (246, tcl_sym_regexp, 3),
     (248, tcl_aux_sym_regexp_repeat1, 2), (252, tcl_sym_command_substitution, 3),
     (253, tcl_sym_quoted_word, 2), (254, tcl_sym_id, 2),
     (256, tcl_sym_id, 2), (258, tcl_sym_regexp, 4)]"

definition tcl_reductions_2 :: "(TSStateId \<times> TSSymbol \<times> nat) list" where
  "tcl_reductions_2 =
    [(259, tcl_aux_sym__id_immediate_repeat1, 2), (260, tcl_sym_variable_substitution, 4),
     (261, tcl_sym_id, 3), (264, tcl_aux_sym__concat_word_repeat1, 3),
     (265, tcl_sym__id_immediate, 1), (267, tcl_sym__id_immediate, 2),
     (269, tcl_sym__id_immediate, 2), (271, tcl_aux_sym__id_immediate_repeat1, 2),
     (273, tcl_sym_array_index, 3), (276, tcl_sym__id_immediate, 3),
     (283, tcl_sym_variable_substitution, 2), (284, tcl_aux_sym_word_list_repeat1, 2),
     (285, tcl_sym_variable_substitution, 4), (286, tcl_sym_braced_word, 2),
     (288, tcl_aux_sym__id_immediate_repeat1, 2), (289, tcl_sym_catch, 2),
     (290, tcl_sym__concat_word, 2), (291, tcl_sym_braced_word, 4),
     (292, tcl_sym__concat_word, 2), (293, tcl_sym_braced_word, 3),
     (296, tcl_sym_braced_word, 5), (298, tcl_aux_sym__concat_word_repeat1, 2),
     (299, tcl_aux_sym__concat_word_repeat1, 2), (300, tcl_sym__concat_word, 3),
     (302, tcl_sym_variable_substitution, 2), (303, tcl_sym_variable_substitution, 4),
     (304, tcl_sym__concat_word, 1), (305, tcl_aux_sym__id_immediate_repeat1, 2),
     (306, tcl_sym_catch, 3), (307, tcl_sym__word_simple, 2),
     (308, tcl_sym__concat_word, 2), (309, tcl_sym_variable_substitution, 3),
     (310, tcl_aux_sym__concat_word_repeat1, 2), (311, tcl_sym__id_immediate, 2),
     (312, tcl_sym__concat_word, 1), (313, tcl_sym_quoted_word, 3),
     (314, tcl_sym__id_immediate, 2), (315, tcl_sym__concat_word, 2),
     (316, tcl_aux_sym__concat_word_repeat1, 2), (317, tcl_sym_command_substitution, 3),
     (318, tcl_sym__concat_word, 3), (320, tcl_sym_quoted_word, 2),
     (321, tcl_aux_sym__id_immediate_repeat1, 2), (322, tcl_sym__id_immediate, 3),
     (323, tcl_aux_sym__id_immediate_repeat1, 2), (324, tcl_aux_sym__word_simple_repeat1, 2),
     (325, tcl_sym_variable_substitution, 5), (326, tcl_aux_sym__word_simple_repeat1, 2),
     (327, tcl_aux_sym__id_immediate_repeat1, 2), (328, tcl_sym_variable_substitution, 2),
     (329, tcl_sym__word_simple, 1), (330, tcl_sym__id_immediate, 1),
     (331, tcl_aux_sym__concat_word_repeat1, 3), (332, tcl_sym_variable_substitution, 4),
     (333, tcl_sym__word_simple, 2), (335, tcl_sym_array_index, 3),
     (336, tcl_aux_sym__id_immediate_repeat1, 2), (337, tcl_sym__concat_word, 1),
     (338, tcl_sym_array_index, 3), (339, tcl_sym__word_simple, 1)]"

definition tcl_reductions_3 :: "(TSStateId \<times> TSSymbol \<times> nat) list" where
  "tcl_reductions_3 =
    [(340, tcl_sym_braced_word, 5), (343, tcl_sym_variable_substitution, 3),
     (344, tcl_sym_quoted_word, 2), (346, tcl_sym_variable_substitution, 5),
     (349, tcl_sym_braced_word, 2), (350, tcl_sym_variable_substitution, 2),
     (351, tcl_sym_quoted_word, 2), (360, tcl_sym_if, 4),
     (361, tcl_sym_braced_word_simple, 2), (362, tcl_sym_if, 4),
     (363, tcl_aux_sym__word_simple_repeat1, 2), (364, tcl_aux_sym__concat_word_repeat1, 3),
     (365, tcl_sym_quoted_word, 3), (366, tcl_sym_quoted_word, 3),
     (367, tcl_aux_sym_word_list_repeat1, 2), (368, tcl_aux_sym__concat_word_repeat1, 2),
     (369, tcl_sym_array_index, 3), (372, tcl_sym_braced_word, 3),
     (374, tcl_sym_variable_substitution, 4), (377, tcl_aux_sym__concat_word_repeat1, 2),
     (378, tcl_sym_command_substitution, 3), (379, tcl_sym_braced_word, 4),
     (380, tcl_sym_if, 5), (381, tcl_sym_variable_substitution, 3),
     (382, tcl_sym_command_substitution, 3), (383, tcl_sym_if, 3),
     (384, tcl_sym_braced_word_simple, 3), (385, tcl_aux_sym_quoted_word_repeat1, 2),
     (386, tcl_aux_sym__word_simple_repeat1, 2), (387, tcl_sym_braced_word_simple, 3),
     (388, tcl_sym_variable_substitution, 5), (391, tcl_sym_braced_word_simple, 2),
     (392, tcl_sym_array_index, 3), (397, tcl_sym__id_immediate, 1),
     (398, tcl_sym__concat_word, 1), (399, tcl_sym__concat_word, 2),
     (400, tcl_sym__concat_word, 2), (402, tcl_aux_sym__concat_word_repeat1, 2),
     (403, tcl_sym__concat_word, 3), (404, tcl_aux_sym__id_immediate_repeat1, 2),
     (405, tcl_sym_arguments, 1), (406, tcl_sym_variable_substitution, 2),
     (407, tcl_sym__id_immediate, 2), (408, tcl_sym__id_immediate, 2),
     (409, tcl_sym_variable_substitution, 4), (410, tcl_sym__id_immediate, 3),
     (411, tcl_sym_array_index, 3), (412, tcl_sym_variable_substitution, 2),
     (413, tcl_aux_sym__id_immediate_repeat1, 2), (414, tcl_sym_variable_substitution, 4),
     (415, tcl_sym_braced_word, 2), (416, tcl_aux_sym__id_immediate_repeat1, 2),
     (417, tcl_aux_sym_if_repeat1, 2), (418, tcl_sym__word_simple, 2),
     (419, tcl_sym_braced_word, 3), (420, tcl_sym_array_index, 3),
     (421, tcl_sym__word_simple, 1), (422, tcl_sym_arguments, 3),
     (423, tcl_sym_braced_word, 4), (424, tcl_aux_sym__word_simple_repeat1, 2)]"

definition tcl_reductions_4 :: "(TSStateId \<times> TSSymbol \<times> nat) list" where
  "tcl_reductions_4 =
    [(425, tcl_sym_braced_word, 5), (426, tcl_sym_expr, 3),
     (427, tcl_sym_quoted_word, 2), (428, tcl_sym__expr_atom_no_brace, 4),
     (429, tcl_sym_variable_substitution, 3), (430, tcl_sym_quoted_word, 3),
     (431, tcl_sym_command_substitution, 3), (432, tcl_sym_variable_substitution, 5),
     (433, tcl_sym__id_immediate, 1), (434, tcl_sym_expr, 1),
     (435, tcl_sym__id_immediate, 2), (436, tcl_sym__id_immediate, 2),
     (437, tcl_sym__id_immediate, 3), (438, tcl_sym_arguments, 2),
     (439, tcl_sym_arguments, 3), (440, tcl_aux_sym__concat_word_repeat1, 2),
     (441, tcl_sym_quoted_word, 2), (442, tcl_sym_quoted_word, 3),
     (443, tcl_aux_sym__concat_word_repeat1, 3), (444, tcl_sym_variable_substitution, 3),
     (445, tcl_sym_command_substitution, 3), (446, tcl_sym_array_index, 3),
     (447, tcl_sym_variable_substitution, 5), (448, tcl_sym_arguments, 1),
     (449, tcl_sym_if, 3), (450, tcl_aux_sym__concat_word_repeat1, 2),
     (451, tcl_sym_arguments, 2), (452, tcl_sym_if, 4),
     (453, tcl_sym_if, 4), (454, tcl_sym_if, 5),
     (455, tcl_sym__concat_word, 1), (456, tcl_sym_try, 2),
     (457, tcl_sym_try, 3), (458, tcl_sym_command_substitution, 3),
     (459, tcl_sym_elseif, 4), (460, tcl_sym_braced_word, 3),
     (462, tcl_aux_sym_if_repeat1, 1), (463, tcl_sym_quoted_word, 2),
     (464, tcl_aux_sym__word_simple_repeat1, 2), (466, tcl_aux_sym_braced_word_repeat2, 2),
     (470, tcl_sym_try, 7), (473, tcl_sym_braced_word, 4),
     (475, tcl_sym_variable_substitution, 3), (476, tcl_sym_quoted_word, 3),
     (477, tcl_sym_array_index, 3), (479, tcl_aux_sym_if_repeat1, 2),
     (482, tcl_sym_elseif, 3), (484, tcl_sym_array_index, 3),
     (486, tcl_sym_try, 8), (487, tcl_sym_variable_substitution, 5),
     (490, tcl_sym__word_simple, 2), (491, tcl_sym__concat_word, 1),
     (494, tcl_sym_variable_substitution, 5), (496, tcl_sym_braced_word, 5),
     (498, tcl_sym__word_simple, 1), (504, tcl_sym_variable_substitution, 3),
     (505, tcl_sym_variable_substitution, 2), (506, tcl_sym_command_substitution, 3),
     (507, tcl_aux_sym__id_immediate_repeat1, 2), (508, tcl_aux_sym__id_immediate_repeat1, 2)]"

definition tcl_reductions_5 :: "(TSStateId \<times> TSSymbol \<times> nat) list" where
  "tcl_reductions_5 =
    [(510, tcl_aux_sym_arguments_repeat1, 2), (511, tcl_sym_try, 6),
     (512, tcl_sym_variable_substitution, 4), (513, tcl_sym_braced_word, 2),
     (514, tcl_sym__word_simple, 1), (515, tcl_sym__concat_word, 3),
     (516, tcl_sym_braced_word_simple, 3), (517, tcl_sym__word_simple, 2),
     (518, tcl_aux_sym__word_simple_repeat1, 2), (519, tcl_aux_sym__word_simple_repeat1, 2),
     (521, tcl_sym__concat_word, 1), (522, tcl_sym_braced_word, 4),
     (523, tcl_aux_sym__concat_word_repeat1, 3), (524, tcl_sym_try, 2),
     (525, tcl_sym_braced_word, 5), (526, tcl_sym_braced_word, 2),
     (527, tcl_sym_braced_word, 3), (528, tcl_sym_try, 3),
     (529, tcl_aux_sym__concat_word_repeat1, 2), (530, tcl_sym__concat_word, 2),
     (531, tcl_sym__concat_word, 2), (533, tcl_aux_sym__concat_word_repeat1, 2),
     (534, tcl_sym_braced_word_simple, 2), (535, tcl_sym_variable_substitution, 3),
     (536, tcl_sym_while, 4), (537, tcl_sym_namespace, 2),
     (538, tcl_sym__expr_atom_no_brace, 4), (539, tcl_sym_if, 6),
     (540, tcl_sym_expr, 1), (541, tcl_sym_try, 6),
     (542, tcl_sym_try, 7), (543, tcl_sym_try, 8),
     (544, tcl_sym_procedure, 6), (545, tcl_sym_variable_substitution, 5),
     (546, tcl_sym_set, 4), (547, tcl_sym_foreach, 4),
     (548, tcl_sym_array_index, 3), (549, tcl_sym_procedure, 4),
     (550, tcl_sym_finally, 2), (551, tcl_sym_catch, 3),
     (552, tcl_sym_elseif, 3), (553, tcl_sym_set, 3),
     (554, tcl_sym_if, 4), (556, tcl_sym_catch, 4),
     (558, tcl_sym_try, 8), (560, tcl_sym_else, 2),
     (561, tcl_sym_try, 9), (562, tcl_sym_command, 2),
     (563, tcl_sym_while, 3), (564, tcl_sym_expr, 3),
     (565, tcl_aux_sym_braced_word_repeat2, 2), (566, tcl_aux_sym__word_simple_repeat1, 2),
     (567, tcl_sym_set, 6), (568, tcl_sym_argument, 3),
     (569, tcl_sym_foreach, 5), (570, tcl_aux_sym_if_repeat1, 1),
     (571, tcl_sym_expr_cmd, 2), (573, tcl_sym_finally, 3),
     (575, tcl_sym_try, 3), (578, tcl_sym_command, 3)]"

definition tcl_reductions_6 :: "(TSStateId \<times> TSSymbol \<times> nat) list" where
  "tcl_reductions_6 =
    [(579, tcl_sym_try, 7), (580, tcl_sym_argument, 1),
     (581, tcl_sym_quoted_word, 2), (582, tcl_sym_try, 4),
     (583, tcl_sym_procedure, 5), (584, tcl_sym_braced_word_simple, 2),
     (585, tcl_sym_procedure, 5), (586, tcl_sym_else, 3),
     (587, tcl_sym_if, 5), (588, tcl_sym_quoted_word, 3),
     (589, tcl_sym_if, 5), (590, tcl_sym_command_substitution, 3),
     (591, tcl_sym_braced_word_simple, 3), (592, tcl_sym_argument, 4),
     (594, tcl_sym_elseif, 4), (595, tcl_sym__concat_word, 1),
     (597, tcl_sym__concat_word, 2), (598, tcl_sym__concat_word, 2),
     (599, tcl_aux_sym__concat_word_repeat1, 2), (600, tcl_sym__concat_word, 3),
     (607, tcl_sym_command, 3), (608, tcl_sym_set, 6),
     (610, tcl_sym_procedure, 6), (612, tcl_sym_if, 6),
     (620, tcl_sym_while, 4), (627, tcl_sym_foreach, 4),
     (628, tcl_sym_try, 7), (630, tcl_sym_try, 4),
     (635, tcl_sym_command, 2), (636, tcl_sym_expr, 3),
     (643, tcl_sym_finally, 2), (656, tcl_sym_try, 8),
     (657, tcl_sym_if, 4), (661, tcl_sym_try, 9),
     (667, tcl_sym_foreach, 5), (668, tcl_sym_finally, 3),
     (671, tcl_sym_expr, 1), (672, tcl_sym_namespace, 2),
     (678, tcl_sym_set, 3), (681, tcl_sym_procedure, 5),
     (684, tcl_sym_procedure, 5), (686, tcl_sym_set, 4),
     (692, tcl_sym_else, 3), (693, tcl_sym_procedure, 4),
     (695, tcl_sym_if, 5), (699, tcl_sym_expr_cmd, 2),
     (701, tcl_sym_else, 2), (703, tcl_sym_catch, 3),
     (706, tcl_sym_while, 3), (710, tcl_sym_catch, 4),
     (712, tcl_sym_if, 5), (713, tcl_sym_try, 3)]"

definition tcl_reductions :: "(TSStateId \<times> TSSymbol \<times> nat) list" where
  "tcl_reductions = tcl_reductions_0 @ tcl_reductions_1 @ tcl_reductions_2 @ tcl_reductions_3 @
   tcl_reductions_4 @ tcl_reductions_5 @ tcl_reductions_6"

text \<open>The non-terminals each state needs an entry for.\<close>

definition tcl_gotos_0 :: "(TSStateId \<times> TSSymbol list) list" where
  "tcl_gotos_0 =
    [(1, [tcl_sym_source_file, tcl_sym_regexp, tcl_sym_while, tcl_sym_expr_cmd, tcl_sym_foreach,
      tcl_sym_global, tcl_sym_namespace, tcl_sym_try, tcl_sym_command, tcl_sym__concat_word,
      tcl_sym_variable_substitution, tcl_sym_braced_word, tcl_sym_set, tcl_sym_procedure,
      tcl_sym_elseif, tcl_sym_else, tcl_sym_if, tcl_sym_catch, tcl_sym_quoted_word,
      tcl_sym_command_substitution, tcl_aux_sym_source_file_repeat1]),
     (2, [tcl_sym_regexp, tcl_sym_while, tcl_sym_expr_cmd, tcl_sym_foreach, tcl_sym_global,
      tcl_sym_namespace, tcl_sym_try, tcl_sym_command, tcl_sym__concat_word,
      tcl_sym_variable_substitution, tcl_sym_braced_word, tcl_sym_set, tcl_sym_procedure,
      tcl_sym_elseif, tcl_sym_else, tcl_sym_if, tcl_sym_catch, tcl_sym_quoted_word,
      tcl_sym_command_substitution, tcl_aux_sym_source_file_repeat1]),
     (3, [tcl_sym_regexp, tcl_sym_while, tcl_sym_expr_cmd, tcl_sym_foreach, tcl_sym_global,
      tcl_sym_namespace, tcl_sym_try, tcl_sym_command, tcl_sym__concat_word,
      tcl_sym_variable_substitution, tcl_sym_braced_word, tcl_sym_set, tcl_sym_procedure,
      tcl_sym_elseif, tcl_sym_else, tcl_sym_if, tcl_sym_catch, tcl_sym_quoted_word,
      tcl_sym_command_substitution, tcl_aux_sym_braced_word_repeat1]),
     (4, [tcl_sym_regexp, tcl_sym_while, tcl_sym_expr_cmd, tcl_sym_foreach, tcl_sym_global,
      tcl_sym_namespace, tcl_sym_try, tcl_sym_command, tcl_sym__concat_word,
      tcl_sym_variable_substitution, tcl_sym_braced_word, tcl_sym_set, tcl_sym_procedure,
      tcl_sym_elseif, tcl_sym_else, tcl_sym_if, tcl_sym_catch, tcl_sym_quoted_word,
      tcl_sym_command_substitution, tcl_aux_sym_braced_word_repeat1]),
     (5, [tcl_sym_regexp, tcl_sym_while, tcl_sym_expr_cmd, tcl_sym_foreach, tcl_sym_global,
      tcl_sym_namespace, tcl_sym_try, tcl_sym_command, tcl_sym__concat_word,
      tcl_sym_variable_substitution, tcl_sym_braced_word, tcl_sym_set, tcl_sym_procedure,
      tcl_sym_elseif, tcl_sym_else, tcl_sym_if, tcl_sym_catch, tcl_sym_quoted_word,
      tcl_sym_command_substitution, tcl_aux_sym_source_file_repeat1]),
     (6, [tcl_sym_regexp, tcl_sym_while, tcl_sym_expr_cmd, tcl_sym_foreach, tcl_sym_global,
      tcl_sym_namespace, tcl_sym_try, tcl_sym_command, tcl_sym__concat_word,
      tcl_sym_variable_substitution, tcl_sym_braced_word, tcl_sym_set, tcl_sym_procedure,
      tcl_sym_elseif, tcl_sym_else, tcl_sym_if, tcl_sym_catch, tcl_sym_quoted_word,
      tcl_sym_command_substitution, tcl_aux_sym_braced_word_repeat1]),
     (7, [tcl_sym_regexp, tcl_sym_while, tcl_sym_expr_cmd, tcl_sym_foreach, tcl_sym_global,
      tcl_sym_namespace, tcl_sym_try, tcl_sym_command, tcl_sym__concat_word,
      tcl_sym_variable_substitution, tcl_sym_braced_word, tcl_sym_set, tcl_sym_procedure,
      tcl_sym_elseif, tcl_sym_else, tcl_sym_if, tcl_sym_catch, tcl_sym_quoted_word,
      tcl_sym_command_substitution, tcl_aux_sym_braced_word_repeat1]),
     (8, [tcl_sym_regexp, tcl_sym_while, tcl_sym_expr_cmd, tcl_sym_foreach, tcl_sym_global,
      tcl_sym_namespace, tcl_sym_try, tcl_sym_command, tcl_sym__concat_word,
      tcl_sym_variable_substitution, tcl_sym_braced_word, tcl_sym_set, tcl_sym_procedure,
      tcl_sym_elseif, tcl_sym_else, tcl_sym_if, tcl_sym_catch, tcl_sym_quoted_word,
      tcl_sym_command_substitution, tcl_aux_sym_braced_word_repeat1]),
     (9, [tcl_sym_regexp, tcl_sym_while, tcl_sym_expr_cmd, tcl_sym_foreach, tcl_sym_global,
      tcl_sym_namespace, tcl_sym_try, tcl_sym_command, tcl_sym__concat_word,
      tcl_sym_variable_substitution, tcl_sym_braced_word, tcl_sym_set, tcl_sym_procedure,
      tcl_sym_elseif, tcl_sym_else, tcl_sym_if, tcl_sym_catch, tcl_sym_quoted_word,
      tcl_sym_command_substitution, tcl_aux_sym_braced_word_repeat1]),
     (10, [tcl_sym_regexp, tcl_sym_while, tcl_sym_expr_cmd, tcl_sym_foreach, tcl_sym_global,
      tcl_sym_namespace, tcl_sym_try, tcl_sym_command, tcl_sym__concat_word,
      tcl_sym_variable_substitution, tcl_sym_braced_word, tcl_sym_set, tcl_sym_procedure,
      tcl_sym_elseif, tcl_sym_else, tcl_sym_if, tcl_sym_catch, tcl_sym_quoted_word,
      tcl_sym_command_substitution, tcl_aux_sym_braced_word_repeat1]),
     (11, [tcl_sym_regexp, tcl_sym_while, tcl_sym_expr_cmd, tcl_sym_foreach, tcl_sym_global,
      tcl_sym_namespace, tcl_sym_try, tcl_sym_command, tcl_sym__concat_word,
      tcl_sym_variable_substitution, tcl_sym_braced_word, tcl_sym_set, tcl_sym_procedure,
      tcl_sym_elseif, tcl_sym_else, tcl_sym_if, tcl_sym_catch, tcl_sym_quoted_word,
      tcl_sym_command_substitution, tcl_aux_sym_braced_word_repeat1]),
     (12, [tcl_sym_regexp, tcl_sym_while, tcl_sym_expr_cmd, tcl_sym_foreach, tcl_sym_global,
      tcl_sym_namespace, tcl_sym_try, tcl_sym_command, tcl_sym__concat_word,
      tcl_sym_variable_substitution, tcl_sym_braced_word, tcl_sym_set, tcl_sym_procedure,
      tcl_sym_elseif, tcl_sym_else, tcl_sym_if, tcl_sym_catch, tcl_sym_quoted_word,
      tcl_sym_command_substitution, tcl_aux_sym_braced_word_repeat1]),
     (13, [tcl_sym_regexp, tcl_sym_while, tcl_sym_expr_cmd, tcl_sym_foreach, tcl_sym_global,
      tcl_sym_namespace, tcl_sym_try, tcl_sym_command, tcl_sym__concat_word,
      tcl_sym_variable_substitution, tcl_sym_braced_word, tcl_sym_set, tcl_sym_procedure,
      tcl_sym_elseif, tcl_sym_else, tcl_sym_if, tcl_sym_catch, tcl_sym_quoted_word,
      tcl_sym_command_substitution, tcl_aux_sym_braced_word_repeat1]),
     (14, [tcl_sym_regexp, tcl_sym_while, tcl_sym_expr_cmd, tcl_sym_foreach, tcl_sym_global,
      tcl_sym_namespace, tcl_sym_try, tcl_sym_command, tcl_sym__concat_word,
      tcl_sym_variable_substitution, tcl_sym_braced_word, tcl_sym_set, tcl_sym_procedure,
      tcl_sym_elseif, tcl_sym_else, tcl_sym_if, tcl_sym_catch, tcl_sym_quoted_word,
      tcl_sym_command_substitution, tcl_aux_sym_braced_word_repeat1]),
     (15, [tcl_sym_regexp, tcl_sym_while, tcl_sym_expr_cmd, tcl_sym_foreach, tcl_sym_global,
      tcl_sym_namespace, tcl_sym_try, tcl_sym_command, tcl_sym__concat_word,
      tcl_sym_variable_substitution, tcl_sym_braced_word, tcl_sym_set, tcl_sym_procedure,
      tcl_sym_elseif, tcl_sym_else, tcl_sym_if, tcl_sym_catch, tcl_sym_quoted_word,
      tcl_sym_command_substitution]),
     (16, [tcl_sym_regexp, tcl_sym_while, tcl_sym_expr_cmd, tcl_sym_foreach, tcl_sym_global,
      tcl_sym_namespace, tcl_sym_try, tcl_sym_command, tcl_sym__concat_word,
      tcl_sym_variable_substitution, tcl_sym_braced_word, tcl_sym_set, tcl_sym_procedure,
      tcl_sym_elseif, tcl_sym_else, tcl_sym_if, tcl_sym_catch, tcl_sym_quoted_word,
      tcl_sym_command_substitution]),
     (17, [tcl_sym_regexp, tcl_sym_while, tcl_sym_expr_cmd, tcl_sym_foreach, tcl_sym_global,
      tcl_sym_namespace, tcl_sym_try, tcl_sym_command, tcl_sym__concat_word,
      tcl_sym_variable_substitution, tcl_sym_braced_word, tcl_sym_set, tcl_sym_procedure,
      tcl_sym_elseif, tcl_sym_else, tcl_sym_if, tcl_sym_catch, tcl_sym_quoted_word,
      tcl_sym_command_substitution]),
     (18, [tcl_sym_regexp, tcl_sym_while, tcl_sym_expr_cmd, tcl_sym_foreach, tcl_sym_global,
      tcl_sym_namespace, tcl_sym_try, tcl_sym_command, tcl_sym__concat_word,
      tcl_sym_variable_substitution, tcl_sym_braced_word, tcl_sym_set, tcl_sym_procedure,
      tcl_sym_elseif, tcl_sym_else, tcl_sym_if, tcl_sym_catch, tcl_sym_quoted_word,
      tcl_sym_command_substitution]),
     (19, [tcl_sym_regexp, tcl_sym_while, tcl_sym_expr_cmd, tcl_sym_foreach, tcl_sym_global,
      tcl_sym_namespace, tcl_sym_try, tcl_sym_command, tcl_sym__concat_word,
      tcl_sym_variable_substitution, tcl_sym_braced_word, tcl_sym_set, tcl_sym_procedure,
      tcl_sym_elseif, tcl_sym_else, tcl_sym_if, tcl_sym_catch, tcl_sym_quoted_word,
      tcl_sym_command_substitution]),
     (20, [tcl_sym_regexp, tcl_sym_while, tcl_sym_expr_cmd, tcl_sym_foreach, tcl_sym_global,
      tcl_sym_namespace, tcl_sym_try, tcl_sym_command, tcl_sym__concat_word,
      tcl_sym_variable_substitution, tcl_sym_braced_word, tcl_sym_set, tcl_sym_procedure,
      tcl_sym_elseif, tcl_sym_else, tcl_sym_if, tcl_sym_catch, tcl_sym_quoted_word,
      tcl_sym_command_substitution]),
     (21, [tcl_sym_regexp, tcl_sym_while, tcl_sym_expr_cmd, tcl_sym_foreach, tcl_sym_global,
      tcl_sym_namespace, tcl_sym_try, tcl_sym_command, tcl_sym__concat_word,
      tcl_sym_variable_substitution, tcl_sym_braced_word, tcl_sym_set, tcl_sym_procedure,
      tcl_sym_elseif, tcl_sym_else, tcl_sym_if, tcl_sym_catch, tcl_sym_quoted_word,
      tcl_sym_command_substitution]),
     (22, [tcl_sym_regexp, tcl_sym_while, tcl_sym_expr_cmd, tcl_sym_foreach, tcl_sym_global,
      tcl_sym_namespace, tcl_sym_try, tcl_sym_command, tcl_sym__concat_word,
      tcl_sym_variable_substitution, tcl_sym_braced_word, tcl_sym_set, tcl_sym_procedure,
      tcl_sym_elseif, tcl_sym_else, tcl_sym_if, tcl_sym_catch, tcl_sym_quoted_word,
      tcl_sym_command_substitution]),
     (23, [tcl_sym_regexp, tcl_sym_while, tcl_sym_expr_cmd, tcl_sym_foreach, tcl_sym_global,
      tcl_sym_namespace, tcl_sym_try, tcl_sym_command, tcl_sym__concat_word,
      tcl_sym_variable_substitution, tcl_sym_braced_word, tcl_sym_set, tcl_sym_procedure,
      tcl_sym_elseif, tcl_sym_else, tcl_sym_if, tcl_sym_catch, tcl_sym_quoted_word,
      tcl_sym_command_substitution]),
     (24, [tcl_sym_regexp, tcl_sym_while, tcl_sym_expr_cmd, tcl_sym_foreach, tcl_sym_global,
      tcl_sym_namespace, tcl_sym_try, tcl_sym_command, tcl_sym__concat_word,
      tcl_sym_variable_substitution, tcl_sym_braced_word, tcl_sym_set, tcl_sym_procedure,
      tcl_sym_elseif, tcl_sym_else, tcl_sym_if, tcl_sym_catch, tcl_sym_quoted_word,
      tcl_sym_command_substitution]),
     (25, [tcl_sym_regexp, tcl_sym_while, tcl_sym_expr_cmd, tcl_sym_foreach, tcl_sym_global,
      tcl_sym_namespace, tcl_sym_try, tcl_sym_command, tcl_sym__concat_word,
      tcl_sym_variable_substitution, tcl_sym_braced_word, tcl_sym_set, tcl_sym_procedure,
      tcl_sym_elseif, tcl_sym_else, tcl_sym_if, tcl_sym_catch, tcl_sym_quoted_word,
      tcl_sym_command_substitution]),
     (26, [tcl_sym_regexp, tcl_sym_while, tcl_sym_expr_cmd, tcl_sym_foreach, tcl_sym_global,
      tcl_sym_namespace, tcl_sym_try, tcl_sym_command, tcl_sym__concat_word,
      tcl_sym_variable_substitution, tcl_sym_braced_word, tcl_sym_set, tcl_sym_procedure,
      tcl_sym_elseif, tcl_sym_else, tcl_sym_if, tcl_sym_catch, tcl_sym_quoted_word,
      tcl_sym_command_substitution]),
     (27, [tcl_sym_regexp, tcl_sym_while, tcl_sym_expr_cmd, tcl_sym_foreach, tcl_sym_global,
      tcl_sym_namespace, tcl_sym_try, tcl_sym_command, tcl_sym__concat_word,
      tcl_sym_variable_substitution, tcl_sym_braced_word, tcl_sym_set, tcl_sym_procedure,
      tcl_sym_elseif, tcl_sym_else, tcl_sym_if, tcl_sym_catch, tcl_sym_quoted_word,
      tcl_sym_command_substitution]),
     (28, [tcl_sym_regexp, tcl_sym_while, tcl_sym_expr_cmd, tcl_sym_foreach, tcl_sym_global,
      tcl_sym_namespace, tcl_sym_try, tcl_sym_command, tcl_sym__concat_word,
      tcl_sym_variable_substitution, tcl_sym_braced_word, tcl_sym_set, tcl_sym_procedure,
      tcl_sym_elseif, tcl_sym_else, tcl_sym_if, tcl_sym_catch, tcl_sym_quoted_word,
      tcl_sym_command_substitution]),
     (29, [tcl_sym_regexp, tcl_sym_while, tcl_sym_expr_cmd, tcl_sym_foreach, tcl_sym_global,
      tcl_sym_namespace, tcl_sym_try, tcl_sym_command, tcl_sym__concat_word,
      tcl_sym_variable_substitution, tcl_sym_braced_word, tcl_sym_set, tcl_sym_procedure,
      tcl_sym_elseif, tcl_sym_else, tcl_sym_if, tcl_sym_catch, tcl_sym_quoted_word,
      tcl_sym_command_substitution]),
     (30, [tcl_aux_sym__id_immediate_repeat1]),
     (31, [tcl_aux_sym__id_immediate_repeat1]),
     (32, [tcl_aux_sym__id_immediate_repeat1]),
     (33, [tcl_aux_sym__id_immediate_repeat1]),
     (34, [tcl_aux_sym__id_immediate_repeat1]),
     (35, []),
     (36, [tcl_sym_array_index]),
     (37, [tcl_sym_array_index]),
     (38, []),
     (39, []),
     (40, []),
     (41, []),
     (42, []),
     (43, []),
     (44, []),
     (45, []),
     (46, []),
     (47, []),
     (48, []),
     (49, []),
     (50, []),
     (51, []),
     (52, []),
     (53, []),
     (54, []),
     (55, []),
     (56, []),
     (57, []),
     (58, []),
     (59, []),
     (60, [])]"

definition tcl_gotos_1 :: "(TSStateId \<times> TSSymbol list) list" where
  "tcl_gotos_1 =
    [(61, []),
     (62, []),
     (63, []),
     (64, []),
     (65, []),
     (66, []),
     (67, []),
     (68, []),
     (69, []),
     (70, [tcl_aux_sym_braced_word_repeat1]),
     (71, []),
     (72, []),
     (73, [tcl_sym_variable_substitution, tcl_sym_braced_word_simple, tcl_sym__expr_atom_no_brace,
      tcl_sym__expr, tcl_sym_unary_expr, tcl_sym_binop_expr, tcl_sym_ternary_expr,
      tcl_sym_quoted_word, tcl_sym_command_substitution]),
     (74, [tcl_sym_variable_substitution, tcl_sym_braced_word_simple, tcl_sym__expr_atom_no_brace,
      tcl_sym__expr, tcl_sym_unary_expr, tcl_sym_binop_expr, tcl_sym_ternary_expr,
      tcl_sym_quoted_word, tcl_sym_command_substitution]),
     (75, [tcl_sym_variable_substitution, tcl_sym_braced_word_simple, tcl_sym__expr_atom_no_brace,
      tcl_sym__expr, tcl_sym_unary_expr, tcl_sym_quoted_word, tcl_sym_command_substitution]),
     (76, [tcl_sym_variable_substitution, tcl_sym_braced_word_simple, tcl_sym__expr_atom_no_brace,
      tcl_sym__expr, tcl_sym_unary_expr, tcl_sym_binop_expr, tcl_sym_quoted_word,
      tcl_sym_command_substitution]),
     (77, [tcl_sym_variable_substitution, tcl_sym_braced_word_simple, tcl_sym__expr_atom_no_brace,
      tcl_sym__expr, tcl_sym_unary_expr, tcl_sym_binop_expr, tcl_sym_ternary_expr,
      tcl_sym_quoted_word, tcl_sym_command_substitution]),
     (78, [tcl_sym_variable_substitution, tcl_sym_braced_word_simple, tcl_sym__expr_atom_no_brace,
      tcl_sym__expr, tcl_sym_unary_expr, tcl_sym_binop_expr, tcl_sym_ternary_expr,
      tcl_sym_quoted_word, tcl_sym_command_substitution]),
     (79, [tcl_sym_variable_substitution, tcl_sym_braced_word_simple, tcl_sym__expr_atom_no_brace,
      tcl_sym__expr, tcl_sym_unary_expr, tcl_sym_quoted_word, tcl_sym_command_substitution]),
     (80, [tcl_sym_variable_substitution, tcl_sym_braced_word_simple, tcl_sym__expr_atom_no_brace,
      tcl_sym__expr, tcl_sym_unary_expr, tcl_sym_binop_expr, tcl_sym_quoted_word,
      tcl_sym_command_substitution]),
     (81, [tcl_sym_variable_substitution, tcl_sym_braced_word_simple, tcl_sym__expr_atom_no_brace,
      tcl_sym__expr, tcl_sym_unary_expr, tcl_sym_binop_expr, tcl_sym_quoted_word,
      tcl_sym_command_substitution]),
     (82, [tcl_sym_variable_substitution, tcl_sym_braced_word_simple, tcl_sym__expr_atom_no_brace,
      tcl_sym__expr, tcl_sym_unary_expr, tcl_sym_binop_expr, tcl_sym_quoted_word,
      tcl_sym_command_substitution]),
     (83, [tcl_sym_variable_substitution, tcl_sym_braced_word_simple, tcl_sym__expr_atom_no_brace,
      tcl_sym__expr, tcl_sym_unary_expr, tcl_sym_binop_expr, tcl_sym_quoted_word,
      tcl_sym_command_substitution]),
     (84, [tcl_sym_variable_substitution, tcl_sym_braced_word_simple, tcl_sym__expr_atom_no_brace,
      tcl_sym__expr, tcl_sym_unary_expr, tcl_sym_binop_expr, tcl_sym_quoted_word,
      tcl_sym_command_substitution]),
     (85, [tcl_sym_variable_substitution, tcl_sym_braced_word_simple, tcl_sym__expr_atom_no_brace,
      tcl_sym__expr, tcl_sym_unary_expr, tcl_sym_binop_expr, tcl_sym_quoted_word,
      tcl_sym_command_substitution]),
     (86, [tcl_sym_variable_substitution, tcl_sym_braced_word_simple, tcl_sym__expr_atom_no_brace,
      tcl_sym__expr, tcl_sym_unary_expr, tcl_sym_binop_expr, tcl_sym_quoted_word,
      tcl_sym_command_substitution]),
     (87, [tcl_sym_variable_substitution, tcl_sym_braced_word_simple, tcl_sym__expr_atom_no_brace,
      tcl_sym__expr, tcl_sym_unary_expr, tcl_sym_binop_expr, tcl_sym_quoted_word,
      tcl_sym_command_substitution]),
     (88, [tcl_sym_variable_substitution, tcl_sym_braced_word_simple, tcl_sym__expr_atom_no_brace,
      tcl_sym__expr, tcl_sym_unary_expr, tcl_sym_binop_expr, tcl_sym_quoted_word,
      tcl_sym_command_substitution]),
     (89, [tcl_sym_variable_substitution, tcl_sym_braced_word_simple, tcl_sym__expr_atom_no_brace,
      tcl_sym__expr, tcl_sym_unary_expr, tcl_sym_binop_expr, tcl_sym_quoted_word,
      tcl_sym_command_substitution]),
     (90, [tcl_sym_variable_substitution, tcl_sym_braced_word_simple, tcl_sym__expr_atom_no_brace,
      tcl_sym__expr, tcl_sym_unary_expr, tcl_sym_binop_expr, tcl_sym_quoted_word,
      tcl_sym_command_substitution]),
     (91, [tcl_sym_variable_substitution, tcl_sym_braced_word_simple, tcl_sym__expr_atom_no_brace,
      tcl_sym__expr, tcl_sym_unary_expr, tcl_sym_binop_expr, tcl_sym_ternary_expr,
      tcl_sym_quoted_word, tcl_sym_command_substitution]),
     (92, [tcl_sym_variable_substitution, tcl_sym_braced_word_simple, tcl_sym__expr_atom_no_brace,
      tcl_sym__expr, tcl_sym_unary_expr, tcl_sym_binop_expr, tcl_sym_ternary_expr,
      tcl_sym_quoted_word, tcl_sym_command_substitution]),
     (93, [tcl_sym_variable_substitution, tcl_sym_braced_word_simple, tcl_sym__expr_atom_no_brace,
      tcl_sym__expr, tcl_sym_unary_expr, tcl_sym_binop_expr, tcl_sym_ternary_expr,
      tcl_sym_quoted_word, tcl_sym_command_substitution]),
     (94, [tcl_sym_variable_substitution, tcl_sym_braced_word_simple, tcl_sym__expr_atom_no_brace,
      tcl_sym__expr, tcl_sym_unary_expr, tcl_sym_binop_expr, tcl_sym_ternary_expr,
      tcl_sym_quoted_word, tcl_sym_command_substitution]),
     (95, [tcl_sym_variable_substitution, tcl_sym_braced_word_simple, tcl_sym__expr_atom_no_brace,
      tcl_sym__expr, tcl_sym_unary_expr, tcl_sym_binop_expr, tcl_sym_quoted_word,
      tcl_sym_command_substitution]),
     (96, [tcl_sym_word_list, tcl_sym__concat_word, tcl_sym_variable_substitution,
      tcl_sym_braced_word, tcl_sym_quoted_word, tcl_sym_command_substitution,
      tcl_aux_sym_word_list_repeat1]),
     (97, [tcl_sym_word_list, tcl_sym__concat_word, tcl_sym_variable_substitution,
      tcl_sym_braced_word, tcl_sym_quoted_word, tcl_sym_command_substitution,
      tcl_aux_sym_word_list_repeat1]),
     (98, [tcl_sym__concat_word, tcl_sym_variable_substitution, tcl_sym_braced_word,
      tcl_sym_quoted_word, tcl_sym_command_substitution, tcl_aux_sym_word_list_repeat1]),
     (99, [tcl_sym__concat_word, tcl_sym_variable_substitution, tcl_sym_braced_word,
      tcl_sym_quoted_word, tcl_sym_command_substitution, tcl_aux_sym_word_list_repeat1]),
     (100, [tcl_sym__word_simple, tcl_sym_array_index, tcl_sym_variable_substitution,
      tcl_sym_braced_word_simple, tcl_sym_quoted_word, tcl_sym_command_substitution]),
     (101, [tcl_aux_sym__id_immediate_repeat1]),
     (102, [tcl_sym_word_list, tcl_sym__concat_word, tcl_sym_variable_substitution,
      tcl_sym_braced_word, tcl_sym_quoted_word, tcl_sym_command_substitution,
      tcl_aux_sym_word_list_repeat1]),
     (103, [tcl_aux_sym__id_immediate_repeat1]),
     (104, [tcl_aux_sym__id_immediate_repeat1]),
     (105, [tcl_sym_word_list, tcl_sym__concat_word, tcl_sym_variable_substitution,
      tcl_sym_braced_word, tcl_sym_quoted_word, tcl_sym_command_substitution,
      tcl_aux_sym_word_list_repeat1]),
     (106, [tcl_aux_sym__id_immediate_repeat1]),
     (107, [tcl_aux_sym__id_immediate_repeat1]),
     (108, [tcl_sym_array_index, tcl_aux_sym__concat_word_repeat1]),
     (109, [tcl_sym_word_list, tcl_sym__concat_word, tcl_sym_variable_substitution,
      tcl_sym_braced_word, tcl_sym_quoted_word, tcl_sym_command_substitution,
      tcl_aux_sym_word_list_repeat1]),
     (110, [tcl_sym__word_simple, tcl_sym_array_index, tcl_sym_variable_substitution,
      tcl_sym_braced_word_simple, tcl_sym_quoted_word, tcl_sym_command_substitution]),
     (111, [tcl_sym__concat_word, tcl_sym_variable_substitution, tcl_sym_braced_word,
      tcl_sym_quoted_word, tcl_sym_command_substitution, tcl_aux_sym_word_list_repeat1]),
     (112, [tcl_sym__concat_word, tcl_sym_variable_substitution, tcl_sym_braced_word,
      tcl_sym_quoted_word, tcl_sym_command_substitution, tcl_aux_sym_word_list_repeat1]),
     (113, [tcl_sym__word_simple, tcl_sym_variable_substitution, tcl_sym_braced_word_simple,
      tcl_sym_quoted_word, tcl_sym_command_substitution]),
     (114, [tcl_sym__word_simple, tcl_sym_variable_substitution, tcl_sym_braced_word_simple,
      tcl_sym_quoted_word, tcl_sym_command_substitution]),
     (115, [tcl_sym_word_list, tcl_sym__concat_word, tcl_sym_variable_substitution,
      tcl_sym_braced_word, tcl_sym_quoted_word, tcl_sym_command_substitution,
      tcl_aux_sym_word_list_repeat1]),
     (116, [tcl_aux_sym__id_immediate_repeat1]),
     (117, [tcl_aux_sym__id_immediate_repeat1]),
     (118, []),
     (119, [tcl_sym__concat_word, tcl_sym_variable_substitution, tcl_sym_quoted_word,
      tcl_sym_command_substitution, tcl_aux_sym_regexp_repeat1]),
     (120, [tcl_sym_array_index])]"

definition tcl_gotos_2 :: "(TSStateId \<times> TSSymbol list) list" where
  "tcl_gotos_2 =
    [(121, [tcl_sym__concat_word, tcl_sym_variable_substitution, tcl_sym_quoted_word,
      tcl_sym_command_substitution, tcl_aux_sym_regexp_repeat1]),
     (122, [tcl_aux_sym__id_immediate_repeat1]),
     (123, [tcl_aux_sym__id_immediate_repeat1]),
     (124, [tcl_aux_sym__id_immediate_repeat1]),
     (125, [tcl_sym__word_simple, tcl_sym_variable_substitution, tcl_sym_braced_word_simple,
      tcl_sym_quoted_word, tcl_sym_command_substitution, tcl_aux_sym_braced_word_simple_repeat1]),
     (126, [tcl_sym__word_simple, tcl_sym_variable_substitution, tcl_sym_braced_word_simple,
      tcl_sym_quoted_word, tcl_sym_command_substitution, tcl_aux_sym_braced_word_simple_repeat1]),
     (127, [tcl_sym_array_index]),
     (128, [tcl_sym__word_simple, tcl_sym_variable_substitution, tcl_sym_braced_word_simple,
      tcl_sym_quoted_word, tcl_sym_command_substitution, tcl_aux_sym_braced_word_simple_repeat1]),
     (129, [tcl_sym__concat_word, tcl_sym_variable_substitution, tcl_sym_quoted_word,
      tcl_sym_command_substitution, tcl_aux_sym_regexp_repeat1]),
     (130, [tcl_sym__word_simple, tcl_sym_variable_substitution, tcl_sym_braced_word_simple,
      tcl_sym_quoted_word, tcl_sym_command_substitution, tcl_aux_sym_braced_word_simple_repeat1]),
     (131, [tcl_sym__word_simple, tcl_sym_variable_substitution, tcl_sym_braced_word_simple,
      tcl_sym_quoted_word, tcl_sym_command_substitution, tcl_aux_sym_braced_word_simple_repeat1]),
     (132, [tcl_sym_array_index]),
     (133, [tcl_aux_sym__id_immediate_repeat1]),
     (134, [tcl_sym__word_simple, tcl_sym_variable_substitution, tcl_sym_braced_word_simple,
      tcl_sym_quoted_word, tcl_sym_command_substitution, tcl_aux_sym_braced_word_simple_repeat1]),
     (135, [tcl_sym__word_simple, tcl_sym_variable_substitution, tcl_sym_braced_word_simple,
      tcl_sym_quoted_word, tcl_sym_command_substitution, tcl_aux_sym_braced_word_simple_repeat1]),
     (136, [tcl_sym__word_simple, tcl_sym_variable_substitution, tcl_sym_braced_word_simple,
      tcl_sym_quoted_word, tcl_sym_command_substitution, tcl_aux_sym_braced_word_simple_repeat1]),
     (137, [tcl_sym__word_simple, tcl_sym_variable_substitution, tcl_sym_braced_word_simple,
      tcl_sym_quoted_word, tcl_sym_command_substitution, tcl_aux_sym_braced_word_simple_repeat1]),
     (138, [tcl_sym__concat_word, tcl_sym_variable_substitution, tcl_sym_quoted_word,
      tcl_sym_command_substitution, tcl_aux_sym_regexp_repeat1]),
     (139, [tcl_aux_sym__id_immediate_repeat1]),
     (140, [tcl_sym__word_simple, tcl_sym_variable_substitution, tcl_sym_braced_word_simple,
      tcl_sym_quoted_word, tcl_sym_command_substitution, tcl_aux_sym_braced_word_simple_repeat1]),
     (141, [tcl_sym__concat_word, tcl_sym_variable_substitution, tcl_sym_quoted_word,
      tcl_sym_command_substitution, tcl_aux_sym_regexp_repeat1]),
     (142, [tcl_aux_sym__id_immediate_repeat1]),
     (143, [tcl_sym__word_simple, tcl_sym_variable_substitution, tcl_sym_braced_word_simple,
      tcl_sym_quoted_word, tcl_sym_command_substitution, tcl_aux_sym_braced_word_simple_repeat1]),
     (144, [tcl_aux_sym__id_immediate_repeat1]),
     (145, [tcl_aux_sym__id_immediate_repeat1]),
     (146, [tcl_sym__concat_word, tcl_sym_variable_substitution, tcl_sym_braced_word,
      tcl_sym_quoted_word, tcl_sym_command_substitution]),
     (147, [tcl_sym__concat_word, tcl_sym_variable_substitution, tcl_sym_braced_word,
      tcl_sym_quoted_word, tcl_sym_command_substitution]),
     (148, [tcl_sym__concat_word, tcl_sym_variable_substitution, tcl_sym_quoted_word,
      tcl_sym_command_substitution]),
     (149, [tcl_sym__concat_word, tcl_sym_variable_substitution, tcl_sym_braced_word,
      tcl_sym_quoted_word, tcl_sym_command_substitution]),
     (150, [tcl_sym__concat_word, tcl_sym_variable_substitution, tcl_sym_braced_word,
      tcl_sym_quoted_word, tcl_sym_command_substitution]),
     (151, [tcl_aux_sym__id_immediate_repeat1]),
     (152, [tcl_sym__concat_word, tcl_sym_variable_substitution, tcl_sym_braced_word,
      tcl_sym_quoted_word, tcl_sym_command_substitution]),
     (153, [tcl_sym__concat_word, tcl_sym_variable_substitution, tcl_sym_braced_word,
      tcl_sym_quoted_word, tcl_sym_command_substitution]),
     (154, [tcl_sym__concat_word, tcl_sym_variable_substitution, tcl_sym_braced_word,
      tcl_sym_quoted_word, tcl_sym_command_substitution]),
     (155, [tcl_sym__concat_word, tcl_sym_variable_substitution, tcl_sym_braced_word,
      tcl_sym_quoted_word, tcl_sym_command_substitution]),
     (156, [tcl_sym_variable_substitution, tcl_sym__expr_atom_no_brace, tcl_sym_expr,
      tcl_sym_quoted_word, tcl_sym_command_substitution]),
     (157, [tcl_sym__concat_word, tcl_sym_variable_substitution, tcl_sym_braced_word,
      tcl_sym_quoted_word, tcl_sym_command_substitution]),
     (158, [tcl_sym__concat_word, tcl_sym_variable_substitution, tcl_sym_braced_word,
      tcl_sym_quoted_word, tcl_sym_command_substitution]),
     (159, [tcl_aux_sym__concat_word_repeat1]),
     (160, [tcl_sym__concat_word, tcl_sym_variable_substitution, tcl_sym_braced_word,
      tcl_sym_quoted_word, tcl_sym_command_substitution]),
     (161, [tcl_aux_sym__concat_word_repeat1]),
     (162, [tcl_sym_array_index, tcl_aux_sym__concat_word_repeat1]),
     (163, [tcl_sym_variable_substitution, tcl_sym__expr_atom_no_brace, tcl_sym_expr,
      tcl_sym_quoted_word, tcl_sym_command_substitution]),
     (164, [tcl_sym__concat_word, tcl_sym_variable_substitution, tcl_sym_braced_word,
      tcl_sym_quoted_word, tcl_sym_command_substitution]),
     (165, [tcl_sym__concat_word, tcl_sym_variable_substitution, tcl_sym_braced_word,
      tcl_sym_quoted_word, tcl_sym_command_substitution]),
     (166, [tcl_aux_sym__id_immediate_repeat1]),
     (167, [tcl_sym__concat_word, tcl_sym_variable_substitution, tcl_sym_braced_word,
      tcl_sym_quoted_word, tcl_sym_command_substitution]),
     (168, [tcl_sym__concat_word, tcl_sym_variable_substitution, tcl_sym_braced_word,
      tcl_sym_quoted_word, tcl_sym_command_substitution]),
     (169, [tcl_sym__concat_word, tcl_sym_variable_substitution, tcl_sym_braced_word,
      tcl_sym_quoted_word, tcl_sym_command_substitution]),
     (170, [tcl_sym__concat_word, tcl_sym_variable_substitution, tcl_sym_braced_word,
      tcl_sym_quoted_word, tcl_sym_command_substitution]),
     (171, [tcl_aux_sym__id_immediate_repeat1]),
     (172, [tcl_sym_variable_substitution, tcl_sym__expr_atom_no_brace, tcl_sym_expr,
      tcl_sym_quoted_word, tcl_sym_command_substitution]),
     (173, [tcl_sym__concat_word, tcl_sym_variable_substitution, tcl_sym_braced_word,
      tcl_sym_quoted_word, tcl_sym_command_substitution]),
     (174, [tcl_sym__concat_word, tcl_sym_variable_substitution, tcl_sym_braced_word,
      tcl_sym_quoted_word, tcl_sym_command_substitution]),
     (175, [tcl_sym__concat_word, tcl_sym_variable_substitution, tcl_sym_braced_word,
      tcl_sym_quoted_word, tcl_sym_command_substitution]),
     (176, [tcl_sym_variable_substitution, tcl_sym__expr_atom_no_brace, tcl_sym_expr,
      tcl_sym_quoted_word, tcl_sym_command_substitution]),
     (177, [tcl_sym__concat_word, tcl_sym_variable_substitution, tcl_sym_braced_word,
      tcl_sym_quoted_word, tcl_sym_command_substitution]),
     (178, [tcl_sym__concat_word, tcl_sym_variable_substitution, tcl_sym_quoted_word,
      tcl_sym_command_substitution]),
     (179, [tcl_sym__concat_word, tcl_sym_variable_substitution, tcl_sym_braced_word,
      tcl_sym_quoted_word, tcl_sym_command_substitution]),
     (180, [tcl_sym__concat_word, tcl_sym_variable_substitution, tcl_sym_braced_word,
      tcl_sym_quoted_word, tcl_sym_command_substitution])]"

definition tcl_gotos_3 :: "(TSStateId \<times> TSSymbol list) list" where
  "tcl_gotos_3 =
    [(181, [tcl_aux_sym__id_immediate_repeat1]),
     (182, [tcl_aux_sym__concat_word_repeat1]),
     (183, [tcl_aux_sym__concat_word_repeat1]),
     (184, [tcl_sym_variable_substitution, tcl_sym__expr_atom_no_brace, tcl_sym_expr,
      tcl_sym_quoted_word, tcl_sym_command_substitution]),
     (185, [tcl_sym_variable_substitution, tcl_sym__expr_atom_no_brace, tcl_sym_expr,
      tcl_sym_quoted_word, tcl_sym_command_substitution]),
     (186, [tcl_sym_variable_substitution, tcl_sym__expr_atom_no_brace, tcl_sym_expr,
      tcl_sym_quoted_word, tcl_sym_command_substitution]),
     (187, [tcl_sym__concat_word, tcl_sym_variable_substitution, tcl_sym_braced_word,
      tcl_sym_quoted_word, tcl_sym_command_substitution]),
     (188, [tcl_aux_sym__id_immediate_repeat1]),
     (189, [tcl_aux_sym__id_immediate_repeat1]),
     (190, [tcl_sym_variable_substitution, tcl_sym__expr_atom_no_brace, tcl_sym_expr,
      tcl_sym_quoted_word, tcl_sym_command_substitution]),
     (191, [tcl_aux_sym__id_immediate_repeat1]),
     (192, [tcl_sym__concat_word, tcl_sym_variable_substitution, tcl_sym_braced_word,
      tcl_sym_quoted_word, tcl_sym_command_substitution]),
     (193, [tcl_sym__concat_word, tcl_sym_variable_substitution, tcl_sym_braced_word,
      tcl_sym_quoted_word, tcl_sym_command_substitution]),
     (194, [tcl_aux_sym__id_immediate_repeat1]),
     (195, [tcl_sym__concat_word, tcl_sym_variable_substitution, tcl_sym_braced_word,
      tcl_sym_quoted_word, tcl_sym_command_substitution]),
     (196, [tcl_sym__word_simple, tcl_sym_variable_substitution, tcl_sym_braced_word_simple,
      tcl_sym_quoted_word, tcl_sym_command_substitution]),
     (197, [tcl_aux_sym__id_immediate_repeat1]),
     (198, [tcl_aux_sym__concat_word_repeat1]),
     (199, [tcl_sym_variable_substitution, tcl_sym__expr_atom_no_brace, tcl_sym_expr,
      tcl_sym_quoted_word, tcl_sym_command_substitution]),
     (200, [tcl_sym__word_simple, tcl_sym_variable_substitution, tcl_sym_braced_word_simple,
      tcl_sym_quoted_word, tcl_sym_command_substitution]),
     (201, [tcl_aux_sym__id_immediate_repeat1]),
     (202, [tcl_sym__word_simple, tcl_sym_variable_substitution, tcl_sym_braced_word_simple,
      tcl_sym_quoted_word, tcl_sym_command_substitution]),
     (203, [tcl_sym__concat_word, tcl_sym_variable_substitution, tcl_sym_braced_word,
      tcl_sym_quoted_word, tcl_sym_command_substitution]),
     (204, [tcl_sym_array_index]),
     (205, [tcl_aux_sym__id_immediate_repeat1]),
     (206, [tcl_sym__word_simple, tcl_sym_variable_substitution, tcl_sym_braced_word_simple,
      tcl_sym_quoted_word, tcl_sym_command_substitution]),
     (207, [tcl_sym__concat_word, tcl_sym_variable_substitution, tcl_sym_braced_word,
      tcl_sym_quoted_word, tcl_sym_command_substitution]),
     (208, []),
     (209, [tcl_sym__concat_word, tcl_sym_variable_substitution, tcl_sym_braced_word,
      tcl_sym_quoted_word, tcl_sym_command_substitution]),
     (210, [tcl_sym__concat_word, tcl_sym_variable_substitution, tcl_sym_braced_word,
      tcl_sym_quoted_word, tcl_sym_command_substitution]),
     (211, []),
     (212, [tcl_sym__concat_word, tcl_sym_variable_substitution, tcl_sym_braced_word,
      tcl_sym_quoted_word, tcl_sym_command_substitution]),
     (213, [tcl_aux_sym__id_immediate_repeat1]),
     (214, [tcl_aux_sym__id_immediate_repeat1]),
     (215, [tcl_aux_sym__id_immediate_repeat1]),
     (216, [tcl_aux_sym__id_immediate_repeat1]),
     (217, [tcl_aux_sym__id_immediate_repeat1]),
     (218, [tcl_sym__concat_word, tcl_sym_variable_substitution, tcl_sym_braced_word,
      tcl_sym_quoted_word, tcl_sym_command_substitution]),
     (219, [tcl_sym__concat_word, tcl_sym_variable_substitution, tcl_sym_braced_word,
      tcl_sym_quoted_word, tcl_sym_command_substitution]),
     (220, [tcl_sym__concat_word, tcl_sym_variable_substitution, tcl_sym_braced_word,
      tcl_sym_quoted_word, tcl_sym_command_substitution]),
     (221, [tcl_sym__concat_word, tcl_sym_variable_substitution, tcl_sym_braced_word,
      tcl_sym_quoted_word, tcl_sym_command_substitution]),
     (222, [tcl_aux_sym__id_immediate_repeat1]),
     (223, [tcl_sym__concat_word, tcl_sym_variable_substitution, tcl_sym_braced_word,
      tcl_sym_quoted_word, tcl_sym_command_substitution]),
     (224, [tcl_sym__concat_word, tcl_sym_variable_substitution, tcl_sym_braced_word,
      tcl_sym_quoted_word, tcl_sym_command_substitution]),
     (225, [tcl_sym__word_simple, tcl_sym_variable_substitution, tcl_sym_braced_word_simple,
      tcl_sym_quoted_word, tcl_sym_command_substitution]),
     (226, [tcl_sym__concat_word, tcl_sym_variable_substitution, tcl_sym_quoted_word,
      tcl_sym_command_substitution, tcl_aux_sym_regexp_repeat1]),
     (227, [tcl_sym_array_index, tcl_aux_sym__concat_word_repeat1]),
     (228, [tcl_sym__concat_word, tcl_sym_variable_substitution, tcl_sym_braced_word,
      tcl_sym_quoted_word, tcl_sym_command_substitution]),
     (229, [tcl_sym__concat_word, tcl_sym_variable_substitution, tcl_sym_braced_word,
      tcl_sym_quoted_word, tcl_sym_command_substitution]),
     (230, [tcl_sym__concat_word, tcl_sym_variable_substitution, tcl_sym_quoted_word,
      tcl_sym_command_substitution, tcl_aux_sym_regexp_repeat1]),
     (231, [tcl_sym__concat_word, tcl_sym_variable_substitution, tcl_sym_braced_word,
      tcl_sym_quoted_word, tcl_sym_command_substitution]),
     (232, []),
     (233, [tcl_sym__concat_word, tcl_sym_variable_substitution, tcl_sym_braced_word,
      tcl_sym_quoted_word, tcl_sym_command_substitution]),
     (234, [tcl_sym__concat_word, tcl_sym_variable_substitution, tcl_sym_braced_word,
      tcl_sym_quoted_word, tcl_sym_command_substitution]),
     (235, []),
     (236, [tcl_sym_array_index]),
     (237, [tcl_aux_sym__id_immediate_repeat1]),
     (238, [tcl_sym__concat_word, tcl_sym_variable_substitution, tcl_sym_braced_word,
      tcl_sym_quoted_word, tcl_sym_command_substitution]),
     (239, [tcl_sym__concat_word, tcl_sym_variable_substitution, tcl_sym_braced_word,
      tcl_sym_quoted_word, tcl_sym_command_substitution]),
     (240, [tcl_sym__concat_word, tcl_sym_variable_substitution, tcl_sym_braced_word,
      tcl_sym_quoted_word, tcl_sym_command_substitution])]"

definition tcl_gotos_4 :: "(TSStateId \<times> TSSymbol list) list" where
  "tcl_gotos_4 =
    [(241, [tcl_sym__concat_word, tcl_sym_variable_substitution, tcl_sym_braced_word,
      tcl_sym_quoted_word, tcl_sym_command_substitution]),
     (242, [tcl_sym__word_simple, tcl_sym_variable_substitution, tcl_sym_braced_word_simple,
      tcl_sym_quoted_word, tcl_sym_command_substitution]),
     (243, [tcl_sym__concat_word, tcl_sym_variable_substitution, tcl_sym_braced_word,
      tcl_sym_quoted_word, tcl_sym_command_substitution]),
     (244, [tcl_sym__concat_word, tcl_sym_variable_substitution, tcl_sym_braced_word,
      tcl_sym_quoted_word, tcl_sym_command_substitution]),
     (245, [tcl_sym__concat_word, tcl_sym_variable_substitution, tcl_sym_braced_word,
      tcl_sym_quoted_word, tcl_sym_command_substitution]),
     (246, [tcl_sym__concat_word, tcl_sym_variable_substitution, tcl_sym_quoted_word,
      tcl_sym_command_substitution, tcl_aux_sym_regexp_repeat1]),
     (247, [tcl_sym__concat_word, tcl_sym_variable_substitution, tcl_sym_braced_word,
      tcl_sym_quoted_word, tcl_sym_command_substitution]),
     (248, [tcl_sym__concat_word, tcl_sym_variable_substitution, tcl_sym_quoted_word,
      tcl_sym_command_substitution, tcl_aux_sym_regexp_repeat1]),
     (249, [tcl_sym__concat_word, tcl_sym_variable_substitution, tcl_sym_braced_word,
      tcl_sym_quoted_word, tcl_sym_command_substitution]),
     (250, [tcl_sym__concat_word, tcl_sym_variable_substitution, tcl_sym_braced_word,
      tcl_sym_quoted_word, tcl_sym_command_substitution]),
     (251, [tcl_sym__concat_word, tcl_sym_variable_substitution, tcl_sym_braced_word,
      tcl_sym_quoted_word, tcl_sym_command_substitution]),
     (252, []),
     (253, []),
     (254, [tcl_aux_sym__id_immediate_repeat1]),
     (255, [tcl_sym__concat_word, tcl_sym_variable_substitution, tcl_sym_braced_word,
      tcl_sym_quoted_word, tcl_sym_command_substitution]),
     (256, [tcl_aux_sym__id_immediate_repeat1]),
     (257, [tcl_sym__concat_word, tcl_sym_variable_substitution, tcl_sym_braced_word,
      tcl_sym_quoted_word, tcl_sym_command_substitution]),
     (258, [tcl_sym__concat_word, tcl_sym_variable_substitution, tcl_sym_quoted_word,
      tcl_sym_command_substitution, tcl_aux_sym_regexp_repeat1]),
     (259, []),
     (260, [tcl_sym_array_index]),
     (261, [tcl_aux_sym__id_immediate_repeat1]),
     (262, [tcl_sym__word_simple, tcl_sym_variable_substitution, tcl_sym_braced_word_simple,
      tcl_sym_quoted_word, tcl_sym_command_substitution]),
     (263, [tcl_sym__word_simple, tcl_sym_variable_substitution, tcl_sym_braced_word_simple,
      tcl_sym_quoted_word, tcl_sym_command_substitution]),
     (264, []),
     (265, [tcl_aux_sym__id_immediate_repeat1]),
     (266, [tcl_sym__word_simple, tcl_sym_variable_substitution, tcl_sym_braced_word_simple,
      tcl_sym_quoted_word, tcl_sym_command_substitution]),
     (267, [tcl_aux_sym__id_immediate_repeat1]),
     (268, [tcl_sym__word_simple, tcl_sym_variable_substitution, tcl_sym_braced_word_simple,
      tcl_sym_quoted_word, tcl_sym_command_substitution]),
     (269, [tcl_aux_sym__id_immediate_repeat1]),
     (270, [tcl_sym__word_simple, tcl_sym_variable_substitution, tcl_sym_braced_word_simple,
      tcl_sym_quoted_word, tcl_sym_command_substitution]),
     (271, []),
     (272, [tcl_sym__word_simple, tcl_sym_variable_substitution, tcl_sym_braced_word_simple,
      tcl_sym_quoted_word, tcl_sym_command_substitution]),
     (273, []),
     (274, [tcl_sym__word_simple, tcl_sym_variable_substitution, tcl_sym_braced_word_simple,
      tcl_sym_quoted_word, tcl_sym_command_substitution]),
     (275, [tcl_sym__word_simple, tcl_sym_variable_substitution, tcl_sym_braced_word_simple,
      tcl_sym_quoted_word, tcl_sym_command_substitution]),
     (276, [tcl_aux_sym__id_immediate_repeat1]),
     (277, [tcl_sym__word_simple, tcl_sym_variable_substitution, tcl_sym_braced_word_simple,
      tcl_sym_quoted_word, tcl_sym_command_substitution]),
     (278, [tcl_sym__word_simple, tcl_sym_variable_substitution, tcl_sym_braced_word_simple,
      tcl_sym_quoted_word, tcl_sym_command_substitution]),
     (279, [tcl_sym__word_simple, tcl_sym_variable_substitution, tcl_sym_braced_word_simple,
      tcl_sym_quoted_word, tcl_sym_command_substitution]),
     (280, [tcl_sym__word_simple, tcl_sym_variable_substitution, tcl_sym_braced_word_simple,
      tcl_sym_quoted_word, tcl_sym_command_substitution]),
     (281, [tcl_sym__concat_word, tcl_sym_variable_substitution, tcl_sym_braced_word,
      tcl_sym_quoted_word, tcl_sym_command_substitution]),
     (282, [tcl_sym__concat_word, tcl_sym_variable_substitution, tcl_sym_braced_word,
      tcl_sym_quoted_word, tcl_sym_command_substitution]),
     (283, [tcl_sym_array_index]),
     (284, []),
     (285, [tcl_sym_array_index]),
     (286, []),
     (287, [tcl_sym_variable_substitution, tcl_sym_braced_word_simple, tcl_sym_quoted_word,
      tcl_sym_command_substitution]),
     (288, []),
     (289, [tcl_sym__concat_word, tcl_sym_variable_substitution, tcl_sym_quoted_word,
      tcl_sym_command_substitution]),
     (290, [tcl_aux_sym__concat_word_repeat1]),
     (291, []),
     (292, [tcl_aux_sym__concat_word_repeat1]),
     (293, []),
     (294, [tcl_sym_variable_substitution, tcl_sym_braced_word_simple, tcl_sym_quoted_word,
      tcl_sym_command_substitution]),
     (295, [tcl_sym_variable_substitution, tcl_sym_braced_word_simple, tcl_sym_quoted_word,
      tcl_sym_command_substitution]),
     (296, []),
     (297, [tcl_sym_variable_substitution, tcl_sym_braced_word_simple, tcl_sym_quoted_word,
      tcl_sym_command_substitution]),
     (298, [tcl_sym_array_index]),
     (299, [tcl_aux_sym__concat_word_repeat1]),
     (300, [tcl_aux_sym__concat_word_repeat1])]"

definition tcl_gotos_5 :: "(TSStateId \<times> TSSymbol list) list" where
  "tcl_gotos_5 =
    [(301, [tcl_sym_variable_substitution, tcl_sym_braced_word_simple, tcl_sym_quoted_word,
      tcl_sym_command_substitution]),
     (302, [tcl_sym_array_index]),
     (303, [tcl_sym_array_index]),
     (304, [tcl_aux_sym__concat_word_repeat1]),
     (305, []),
     (306, [tcl_sym__concat_word, tcl_sym_variable_substitution, tcl_sym_quoted_word,
      tcl_sym_command_substitution]),
     (307, [tcl_aux_sym__word_simple_repeat1]),
     (308, [tcl_aux_sym__concat_word_repeat1]),
     (309, []),
     (310, []),
     (311, [tcl_aux_sym__id_immediate_repeat1]),
     (312, [tcl_aux_sym__concat_word_repeat1]),
     (313, []),
     (314, [tcl_aux_sym__id_immediate_repeat1]),
     (315, [tcl_aux_sym__concat_word_repeat1]),
     (316, [tcl_aux_sym__concat_word_repeat1]),
     (317, []),
     (318, [tcl_aux_sym__concat_word_repeat1]),
     (319, [tcl_sym__concat_word, tcl_sym_variable_substitution, tcl_sym_quoted_word,
      tcl_sym_command_substitution]),
     (320, []),
     (321, []),
     (322, [tcl_aux_sym__id_immediate_repeat1]),
     (323, [tcl_aux_sym__id_immediate_repeat1]),
     (324, [tcl_aux_sym__word_simple_repeat1]),
     (325, []),
     (326, [tcl_aux_sym__word_simple_repeat1]),
     (327, []),
     (328, [tcl_sym_array_index]),
     (329, [tcl_aux_sym__word_simple_repeat1]),
     (330, [tcl_aux_sym__id_immediate_repeat1]),
     (331, []),
     (332, [tcl_sym_array_index]),
     (333, [tcl_aux_sym__word_simple_repeat1]),
     (334, [tcl_sym__concat_word, tcl_sym_variable_substitution, tcl_sym_quoted_word,
      tcl_sym_command_substitution]),
     (335, []),
     (336, []),
     (337, [tcl_sym_array_index, tcl_aux_sym__concat_word_repeat1]),
     (338, []),
     (339, [tcl_aux_sym__word_simple_repeat1]),
     (340, []),
     (341, [tcl_sym_variable_substitution, tcl_sym_command_substitution,
      tcl_aux_sym_quoted_word_repeat1]),
     (342, [tcl_sym_variable_substitution, tcl_sym_quoted_word, tcl_sym_command_substitution]),
     (343, []),
     (344, []),
     (345, [tcl_sym_variable_substitution, tcl_sym_command_substitution,
      tcl_aux_sym_quoted_word_repeat1]),
     (346, []),
     (347, [tcl_sym_variable_substitution, tcl_sym_command_substitution,
      tcl_aux_sym_quoted_word_repeat1]),
     (348, [tcl_sym_variable_substitution, tcl_sym_quoted_word, tcl_sym_command_substitution]),
     (349, []),
     (350, [tcl_sym_array_index]),
     (351, []),
     (352, [tcl_sym_variable_substitution, tcl_sym_command_substitution,
      tcl_aux_sym_quoted_word_repeat1]),
     (353, [tcl_sym_variable_substitution, tcl_sym_command_substitution,
      tcl_aux_sym_quoted_word_repeat1]),
     (354, [tcl_sym_variable_substitution, tcl_sym_command_substitution,
      tcl_aux_sym_quoted_word_repeat1]),
     (355, [tcl_sym_variable_substitution, tcl_sym_command_substitution,
      tcl_aux_sym_quoted_word_repeat1]),
     (356, [tcl_sym_variable_substitution, tcl_sym_command_substitution,
      tcl_aux_sym_quoted_word_repeat1]),
     (357, [tcl_sym_variable_substitution, tcl_sym_command_substitution,
      tcl_aux_sym_quoted_word_repeat1]),
     (358, [tcl_sym_variable_substitution, tcl_sym_command_substitution,
      tcl_aux_sym_quoted_word_repeat1]),
     (359, [tcl_sym_variable_substitution, tcl_sym_command_substitution,
      tcl_aux_sym_quoted_word_repeat1]),
     (360, [tcl_sym_elseif, tcl_sym_else, tcl_aux_sym_if_repeat1])]"

definition tcl_gotos_6 :: "(TSStateId \<times> TSSymbol list) list" where
  "tcl_gotos_6 =
    [(361, []),
     (362, [tcl_sym_elseif, tcl_sym_else, tcl_aux_sym_if_repeat1]),
     (363, []),
     (364, []),
     (365, []),
     (366, []),
     (367, []),
     (368, []),
     (369, []),
     (370, [tcl_sym_variable_substitution, tcl_sym_command_substitution,
      tcl_aux_sym_quoted_word_repeat1]),
     (371, [tcl_sym_variable_substitution, tcl_sym_quoted_word, tcl_sym_command_substitution]),
     (372, []),
     (373, [tcl_sym_variable_substitution, tcl_sym_command_substitution,
      tcl_aux_sym_quoted_word_repeat1]),
     (374, [tcl_sym_array_index]),
     (375, [tcl_sym_variable_substitution, tcl_sym_quoted_word, tcl_sym_command_substitution]),
     (376, [tcl_sym_variable_substitution, tcl_sym_command_substitution,
      tcl_aux_sym_quoted_word_repeat1]),
     (377, [tcl_sym_array_index]),
     (378, []),
     (379, []),
     (380, [tcl_sym_elseif, tcl_sym_else, tcl_aux_sym_if_repeat1]),
     (381, []),
     (382, []),
     (383, [tcl_sym_elseif, tcl_sym_else, tcl_aux_sym_if_repeat1]),
     (384, []),
     (385, [tcl_sym_variable_substitution, tcl_sym_command_substitution,
      tcl_aux_sym_quoted_word_repeat1]),
     (386, []),
     (387, []),
     (388, []),
     (389, [tcl_sym_variable_substitution, tcl_sym_quoted_word, tcl_sym_command_substitution]),
     (390, [tcl_sym_variable_substitution, tcl_sym_command_substitution,
      tcl_aux_sym_quoted_word_repeat1]),
     (391, []),
     (392, []),
     (393, [tcl_sym_variable_substitution, tcl_sym_command_substitution,
      tcl_aux_sym_quoted_word_repeat1]),
     (394, [tcl_sym_variable_substitution, tcl_sym_quoted_word, tcl_sym_command_substitution]),
     (395, [tcl_sym_variable_substitution, tcl_sym_command_substitution,
      tcl_aux_sym_quoted_word_repeat1]),
     (396, [tcl_sym_variable_substitution, tcl_sym_command_substitution,
      tcl_aux_sym_quoted_word_repeat1]),
     (397, [tcl_aux_sym__id_immediate_repeat1]),
     (398, [tcl_aux_sym__concat_word_repeat1]),
     (399, [tcl_aux_sym__concat_word_repeat1]),
     (400, [tcl_aux_sym__concat_word_repeat1]),
     (401, [tcl_sym_braced_word, tcl_sym_quoted_word]),
     (402, [tcl_aux_sym__concat_word_repeat1]),
     (403, [tcl_aux_sym__concat_word_repeat1]),
     (404, [tcl_aux_sym__id_immediate_repeat1]),
     (405, []),
     (406, [tcl_sym_array_index]),
     (407, [tcl_aux_sym__id_immediate_repeat1]),
     (408, [tcl_aux_sym__id_immediate_repeat1]),
     (409, [tcl_sym_array_index]),
     (410, [tcl_aux_sym__id_immediate_repeat1]),
     (411, []),
     (412, [tcl_sym_array_index]),
     (413, [tcl_aux_sym__id_immediate_repeat1]),
     (414, [tcl_sym_array_index]),
     (415, []),
     (416, []),
     (417, [tcl_sym_elseif, tcl_aux_sym_if_repeat1]),
     (418, [tcl_aux_sym__word_simple_repeat1]),
     (419, []),
     (420, [])]"

definition tcl_gotos_7 :: "(TSStateId \<times> TSSymbol list) list" where
  "tcl_gotos_7 =
    [(421, [tcl_aux_sym__word_simple_repeat1]),
     (422, []),
     (423, []),
     (424, [tcl_aux_sym__word_simple_repeat1]),
     (425, []),
     (426, []),
     (427, []),
     (428, []),
     (429, []),
     (430, []),
     (431, []),
     (432, []),
     (433, [tcl_aux_sym__id_immediate_repeat1]),
     (434, []),
     (435, [tcl_aux_sym__id_immediate_repeat1]),
     (436, [tcl_aux_sym__id_immediate_repeat1]),
     (437, [tcl_aux_sym__id_immediate_repeat1]),
     (438, []),
     (439, []),
     (440, [tcl_sym_array_index]),
     (441, []),
     (442, []),
     (443, []),
     (444, []),
     (445, []),
     (446, []),
     (447, []),
     (448, []),
     (449, [tcl_sym_elseif, tcl_sym_else, tcl_aux_sym_if_repeat1]),
     (450, []),
     (451, []),
     (452, [tcl_sym_elseif, tcl_sym_else, tcl_aux_sym_if_repeat1]),
     (453, [tcl_sym_elseif, tcl_sym_else, tcl_aux_sym_if_repeat1]),
     (454, [tcl_sym_elseif, tcl_sym_else, tcl_aux_sym_if_repeat1]),
     (455, [tcl_sym_array_index, tcl_aux_sym__concat_word_repeat1]),
     (456, [tcl_sym_finally]),
     (457, [tcl_sym_finally]),
     (458, []),
     (459, []),
     (460, []),
     (461, [tcl_aux_sym_braced_word_repeat1, tcl_aux_sym_braced_word_repeat2]),
     (462, []),
     (463, []),
     (464, [tcl_aux_sym__word_simple_repeat1]),
     (465, [tcl_sym__id_immediate]),
     (466, [tcl_aux_sym_braced_word_repeat1, tcl_aux_sym_braced_word_repeat2]),
     (467, [tcl_sym_argument, tcl_aux_sym_arguments_repeat1]),
     (468, [tcl_aux_sym_braced_word_repeat1, tcl_aux_sym_braced_word_repeat2]),
     (469, [tcl_sym_argument, tcl_aux_sym_arguments_repeat1]),
     (470, [tcl_sym_finally]),
     (471, [tcl_sym_argument, tcl_aux_sym_arguments_repeat1]),
     (472, [tcl_sym_argument, tcl_aux_sym_arguments_repeat1]),
     (473, []),
     (474, [tcl_aux_sym_braced_word_repeat1, tcl_aux_sym_braced_word_repeat2]),
     (475, []),
     (476, []),
     (477, []),
     (478, [tcl_sym__id_immediate]),
     (479, [tcl_sym_elseif, tcl_aux_sym_if_repeat1]),
     (480, [tcl_aux_sym_braced_word_repeat1, tcl_aux_sym_braced_word_repeat2])]"

definition tcl_gotos_8 :: "(TSStateId \<times> TSSymbol list) list" where
  "tcl_gotos_8 =
    [(481, [tcl_aux_sym_braced_word_repeat1, tcl_aux_sym_braced_word_repeat2]),
     (482, []),
     (483, [tcl_sym__id_immediate]),
     (484, []),
     (485, [tcl_aux_sym_braced_word_repeat1, tcl_aux_sym_braced_word_repeat2]),
     (486, [tcl_sym_finally]),
     (487, []),
     (488, [tcl_aux_sym_braced_word_repeat1, tcl_aux_sym_braced_word_repeat2]),
     (489, [tcl_sym__id_immediate]),
     (490, [tcl_aux_sym__word_simple_repeat1]),
     (491, [tcl_sym_array_index, tcl_aux_sym__concat_word_repeat1]),
     (492, [tcl_aux_sym_braced_word_repeat1, tcl_aux_sym_braced_word_repeat2]),
     (493, [tcl_sym__id_immediate]),
     (494, []),
     (495, [tcl_aux_sym_braced_word_repeat1, tcl_aux_sym_braced_word_repeat2]),
     (496, []),
     (497, [tcl_sym__id_immediate]),
     (498, [tcl_aux_sym__word_simple_repeat1]),
     (499, [tcl_sym__id_immediate]),
     (500, [tcl_sym__id_immediate]),
     (501, [tcl_sym__id_immediate]),
     (502, [tcl_sym__id_immediate]),
     (503, [tcl_sym__id_immediate]),
     (504, []),
     (505, [tcl_sym_array_index]),
     (506, []),
     (507, []),
     (508, []),
     (509, [tcl_aux_sym_braced_word_repeat1, tcl_aux_sym_braced_word_repeat2]),
     (510, [tcl_sym_argument, tcl_aux_sym_arguments_repeat1]),
     (511, [tcl_sym_finally]),
     (512, [tcl_sym_array_index]),
     (513, []),
     (514, [tcl_aux_sym__word_simple_repeat1]),
     (515, [tcl_aux_sym__concat_word_repeat1]),
     (516, []),
     (517, [tcl_aux_sym__word_simple_repeat1]),
     (518, [tcl_aux_sym__word_simple_repeat1]),
     (519, []),
     (520, [tcl_sym_id]),
     (521, [tcl_aux_sym__concat_word_repeat1]),
     (522, []),
     (523, []),
     (524, [tcl_sym_finally]),
     (525, []),
     (526, []),
     (527, []),
     (528, [tcl_sym_finally]),
     (529, []),
     (530, [tcl_aux_sym__concat_word_repeat1]),
     (531, [tcl_aux_sym__concat_word_repeat1]),
     (532, [tcl_sym_id]),
     (533, [tcl_aux_sym__concat_word_repeat1]),
     (534, []),
     (535, []),
     (536, []),
     (537, []),
     (538, []),
     (539, []),
     (540, [])]"

definition tcl_gotos_9 :: "(TSStateId \<times> TSSymbol list) list" where
  "tcl_gotos_9 =
    [(541, [tcl_sym_finally]),
     (542, [tcl_sym_finally]),
     (543, [tcl_sym_finally]),
     (544, []),
     (545, []),
     (546, []),
     (547, []),
     (548, []),
     (549, []),
     (550, []),
     (551, []),
     (552, []),
     (553, []),
     (554, []),
     (555, [tcl_sym_arguments]),
     (556, []),
     (557, [tcl_sym_arguments]),
     (558, []),
     (559, [tcl_sym_arguments]),
     (560, []),
     (561, []),
     (562, []),
     (563, []),
     (564, []),
     (565, []),
     (566, []),
     (567, []),
     (568, []),
     (569, []),
     (570, []),
     (571, []),
     (572, [tcl_sym_arguments]),
     (573, []),
     (574, [tcl_sym_arguments]),
     (575, []),
     (576, [tcl_sym_arguments]),
     (577, [tcl_sym_arguments]),
     (578, []),
     (579, []),
     (580, []),
     (581, []),
     (582, []),
     (583, []),
     (584, []),
     (585, []),
     (586, []),
     (587, []),
     (588, []),
     (589, []),
     (590, []),
     (591, []),
     (592, []),
     (593, [tcl_sym_arguments]),
     (594, []),
     (595, [tcl_aux_sym__concat_word_repeat1]),
     (596, [tcl_sym_arguments]),
     (597, [tcl_aux_sym__concat_word_repeat1]),
     (598, [tcl_aux_sym__concat_word_repeat1]),
     (599, [tcl_aux_sym__concat_word_repeat1]),
     (600, [tcl_aux_sym__concat_word_repeat1])]"

definition tcl_gotos_10 :: "(TSStateId \<times> TSSymbol list) list" where
  "tcl_gotos_10 =
    [(601, [tcl_sym_arguments]),
     (602, []),
     (603, []),
     (604, []),
     (605, []),
     (606, []),
     (607, []),
     (608, []),
     (609, []),
     (610, []),
     (611, []),
     (612, []),
     (613, []),
     (614, []),
     (615, []),
     (616, []),
     (617, []),
     (618, []),
     (619, []),
     (620, []),
     (621, []),
     (622, []),
     (623, []),
     (624, []),
     (625, []),
     (626, []),
     (627, []),
     (628, []),
     (629, []),
     (630, []),
     (631, []),
     (632, []),
     (633, []),
     (634, []),
     (635, []),
     (636, []),
     (637, []),
     (638, []),
     (639, []),
     (640, []),
     (641, []),
     (642, []),
     (643, []),
     (644, []),
     (645, []),
     (646, []),
     (647, []),
     (648, []),
     (649, []),
     (650, []),
     (651, []),
     (652, []),
     (653, []),
     (654, []),
     (655, []),
     (656, []),
     (657, []),
     (658, []),
     (659, []),
     (660, [])]"

definition tcl_gotos_11 :: "(TSStateId \<times> TSSymbol list) list" where
  "tcl_gotos_11 =
    [(661, []),
     (662, []),
     (663, []),
     (664, []),
     (665, []),
     (666, []),
     (667, []),
     (668, []),
     (669, []),
     (670, []),
     (671, []),
     (672, []),
     (673, []),
     (674, []),
     (675, []),
     (676, []),
     (677, []),
     (678, []),
     (679, []),
     (680, []),
     (681, []),
     (682, []),
     (683, []),
     (684, []),
     (685, []),
     (686, []),
     (687, []),
     (688, []),
     (689, []),
     (690, []),
     (691, []),
     (692, []),
     (693, []),
     (694, []),
     (695, []),
     (696, []),
     (697, []),
     (698, []),
     (699, []),
     (700, []),
     (701, []),
     (702, []),
     (703, []),
     (704, []),
     (705, []),
     (706, []),
     (707, []),
     (708, []),
     (709, []),
     (710, []),
     (711, []),
     (712, []),
     (713, []),
     (714, []),
     (715, []),
     (716, [])]"

definition tcl_gotos :: "(TSStateId \<times> TSSymbol list) list" where
  "tcl_gotos = tcl_gotos_0 @ tcl_gotos_1 @ tcl_gotos_2 @ tcl_gotos_3 @ tcl_gotos_4 @ tcl_gotos_5 @
   tcl_gotos_6 @ tcl_gotos_7 @ tcl_gotos_8 @ tcl_gotos_9 @ tcl_gotos_10 @ tcl_gotos_11"

section \<open>Look-ups in the certificate\<close>

lemmas tcl_incoming_defs =
  tcl_incoming_0_def tcl_incoming_1_def tcl_incoming_2_def tcl_incoming_3_def tcl_incoming_4_def
   tcl_incoming_5_def tcl_incoming_6_def tcl_incoming_7_def tcl_incoming_8_def tcl_incoming_9_def
   tcl_incoming_10_def tcl_incoming_11_def

lemmas tcl_reductions_defs =
  tcl_reductions_0_def tcl_reductions_1_def tcl_reductions_2_def tcl_reductions_3_def
   tcl_reductions_4_def tcl_reductions_5_def tcl_reductions_6_def

lemmas tcl_gotos_defs =
  tcl_gotos_0_def tcl_gotos_1_def tcl_gotos_2_def tcl_gotos_3_def tcl_gotos_4_def tcl_gotos_5_def
   tcl_gotos_6_def tcl_gotos_7_def tcl_gotos_8_def tcl_gotos_9_def tcl_gotos_10_def
   tcl_gotos_11_def

lemma tcl_incoming_numbered:
  "numbered 2 tcl_incoming_0 62"
  "numbered 62 tcl_incoming_1 122"
  "numbered 122 tcl_incoming_2 182"
  "numbered 182 tcl_incoming_3 242"
  "numbered 242 tcl_incoming_4 302"
  "numbered 302 tcl_incoming_5 362"
  "numbered 362 tcl_incoming_6 422"
  "numbered 422 tcl_incoming_7 482"
  "numbered 482 tcl_incoming_8 542"
  "numbered 542 tcl_incoming_9 602"
  "numbered 602 tcl_incoming_10 662"
  "numbered 662 tcl_incoming_11 717"
  by (simp_all add: tcl_incoming_defs numbered_def upt_rec)

lemma tcl_incoming_states: "numbered 2 tcl_incoming tcl_STATE_COUNT"
  unfolding tcl_incoming_def by ((rule numbered_append tcl_incoming_numbered)+)

lemmas tcl_incoming_piece = array_of_piece [OF numbered_distinct [OF tcl_incoming_states]]

lemma tcl_incoming_pieces:
  "set tcl_incoming_0 \<subseteq> set tcl_incoming"
  "set tcl_incoming_1 \<subseteq> set tcl_incoming"
  "set tcl_incoming_2 \<subseteq> set tcl_incoming"
  "set tcl_incoming_3 \<subseteq> set tcl_incoming"
  "set tcl_incoming_4 \<subseteq> set tcl_incoming"
  "set tcl_incoming_5 \<subseteq> set tcl_incoming"
  "set tcl_incoming_6 \<subseteq> set tcl_incoming"
  "set tcl_incoming_7 \<subseteq> set tcl_incoming"
  "set tcl_incoming_8 \<subseteq> set tcl_incoming"
  "set tcl_incoming_9 \<subseteq> set tcl_incoming"
  "set tcl_incoming_10 \<subseteq> set tcl_incoming"
  "set tcl_incoming_11 \<subseteq> set tcl_incoming"
  by (auto simp: tcl_incoming_def)

lemmas tcl_incoming_facts =
  tcl_incoming_piece [OF tcl_incoming_pieces(1), of "[]", simplified tcl_incoming_0_def list.pred_inject prod.case One_nat_def simp_thms]
  tcl_incoming_piece [OF tcl_incoming_pieces(2), of "[]", simplified tcl_incoming_1_def list.pred_inject prod.case One_nat_def simp_thms]
  tcl_incoming_piece [OF tcl_incoming_pieces(3), of "[]", simplified tcl_incoming_2_def list.pred_inject prod.case One_nat_def simp_thms]
  tcl_incoming_piece [OF tcl_incoming_pieces(4), of "[]", simplified tcl_incoming_3_def list.pred_inject prod.case One_nat_def simp_thms]
  tcl_incoming_piece [OF tcl_incoming_pieces(5), of "[]", simplified tcl_incoming_4_def list.pred_inject prod.case One_nat_def simp_thms]
  tcl_incoming_piece [OF tcl_incoming_pieces(6), of "[]", simplified tcl_incoming_5_def list.pred_inject prod.case One_nat_def simp_thms]
  tcl_incoming_piece [OF tcl_incoming_pieces(7), of "[]", simplified tcl_incoming_6_def list.pred_inject prod.case One_nat_def simp_thms]
  tcl_incoming_piece [OF tcl_incoming_pieces(8), of "[]", simplified tcl_incoming_7_def list.pred_inject prod.case One_nat_def simp_thms]
  tcl_incoming_piece [OF tcl_incoming_pieces(9), of "[]", simplified tcl_incoming_8_def list.pred_inject prod.case One_nat_def simp_thms]
  tcl_incoming_piece [OF tcl_incoming_pieces(10), of "[]", simplified tcl_incoming_9_def list.pred_inject prod.case One_nat_def simp_thms]
  tcl_incoming_piece [OF tcl_incoming_pieces(11), of "[]", simplified tcl_incoming_10_def list.pred_inject prod.case One_nat_def simp_thms]
  tcl_incoming_piece [OF tcl_incoming_pieces(12), of "[]", simplified tcl_incoming_11_def list.pred_inject prod.case One_nat_def simp_thms]

lemma tcl_reduction_pieces:
  "list_all (\<lambda>x. x \<in> set tcl_reductions) tcl_reductions_0"
  "list_all (\<lambda>x. x \<in> set tcl_reductions) tcl_reductions_1"
  "list_all (\<lambda>x. x \<in> set tcl_reductions) tcl_reductions_2"
  "list_all (\<lambda>x. x \<in> set tcl_reductions) tcl_reductions_3"
  "list_all (\<lambda>x. x \<in> set tcl_reductions) tcl_reductions_4"
  "list_all (\<lambda>x. x \<in> set tcl_reductions) tcl_reductions_5"
  "list_all (\<lambda>x. x \<in> set tcl_reductions) tcl_reductions_6"
  by (simp_all add: tcl_reductions_def list_all_iff)

lemmas tcl_reduction_facts =
  tcl_reduction_pieces(1) [simplified tcl_reductions_0_def list.pred_inject One_nat_def simp_thms]
  tcl_reduction_pieces(2) [simplified tcl_reductions_1_def list.pred_inject One_nat_def simp_thms]
  tcl_reduction_pieces(3) [simplified tcl_reductions_2_def list.pred_inject One_nat_def simp_thms]
  tcl_reduction_pieces(4) [simplified tcl_reductions_3_def list.pred_inject One_nat_def simp_thms]
  tcl_reduction_pieces(5) [simplified tcl_reductions_4_def list.pred_inject One_nat_def simp_thms]
  tcl_reduction_pieces(6) [simplified tcl_reductions_5_def list.pred_inject One_nat_def simp_thms]
  tcl_reduction_pieces(7) [simplified tcl_reductions_6_def list.pred_inject One_nat_def simp_thms]

lemma tcl_unit_facts:
  "unit_ok tcl_grammar 78 4"
  "unit_ok tcl_grammar 78 70"
  "unit_ok tcl_grammar 78 71"
  "unit_ok tcl_grammar 78 72"
  "unit_ok tcl_grammar 78 73"
  "unit_ok tcl_grammar 78 74"
  "unit_ok tcl_grammar 78 75"
  "unit_ok tcl_grammar 78 76"
  "unit_ok tcl_grammar 78 79"
  "unit_ok tcl_grammar 78 90"
  "unit_ok tcl_grammar 78 91"
  "unit_ok tcl_grammar 78 101"
  "unit_ok tcl_grammar 78 102"
  "unit_ok tcl_grammar 78 103"
  "unit_ok tcl_grammar 78 104"
  "unit_ok tcl_grammar 78 105"
  "unit_ok tcl_grammar 83 16"
  "unit_ok tcl_grammar 92 (Suc 0)"
  "unit_ok tcl_grammar 92 88"
  "unit_ok tcl_grammar 92 106"
  "unit_ok tcl_grammar 95 28"
  "unit_ok tcl_grammar 95 29"
  "unit_ok tcl_grammar 95 87"
  "unit_ok tcl_grammar 95 106"
  "unit_ok tcl_grammar 95 107"
  "unit_ok tcl_grammar 96 28"
  "unit_ok tcl_grammar 96 29"
  "unit_ok tcl_grammar 96 63"
  "unit_ok tcl_grammar 96 87"
  "unit_ok tcl_grammar 96 89"
  "unit_ok tcl_grammar 96 95"
  "unit_ok tcl_grammar 96 98"
  "unit_ok tcl_grammar 96 99"
  "unit_ok tcl_grammar 96 100"
  "unit_ok tcl_grammar 96 106"
  "unit_ok tcl_grammar 96 107"
  "unit_ok tcl_grammar 108 2"
  "unit_ok tcl_grammar 108 3"
  "unit_ok tcl_grammar 109 82"
  "unit_ok tcl_grammar 110 82"
  "unit_ok tcl_grammar 110 88"
  "unit_ok tcl_grammar 114 2"
  "unit_ok tcl_grammar 114 3"
  "unit_ok tcl_grammar 116 81"
  "unit_ok tcl_grammar 117 93"
  "unit_ok tcl_grammar 119 63"
  "unit_ok tcl_grammar 119 64"
  "unit_ok tcl_grammar 119 87"
  "unit_ok tcl_grammar 119 107"
  by (simp_all add: unit_depth_def numeral_3_eq_3 tcl_unit_steps del: unit_derives.simps(2))

lemmas tcl_check_simps =
  check_simps tcl_unit_facts tcl_action_facts tcl_incoming_facts tcl_reduction_facts

section \<open>Every entry is certified\<close>

abbreviation tcl_certified :: "nat \<Rightarrow> TSSymbol \<Rightarrow> nat \<Rightarrow> bool" where
  "tcl_certified \<equiv> certified_entry tcl_incoming tcl_reductions tcl_grammar tcl_sym_source_file tcl_TOKEN_COUNT
     tcl_ts_parse_actions"

lemma tcl_entries_large: "check_large tcl_certified tcl_ts_parse_table"
  by (simp add: tcl_check_simps tcl_table_defs)

lemma tcl_entries_pieces:
  "check_runs tcl_certified 2 tcl_small_table_0"
  "check_runs tcl_certified 62 tcl_small_table_1"
  "check_runs tcl_certified 122 tcl_small_table_2"
  "check_runs tcl_certified 182 tcl_small_table_3"
  "check_runs tcl_certified 242 tcl_small_table_4"
  "check_runs tcl_certified 302 tcl_small_table_5"
  "check_runs tcl_certified 362 tcl_small_table_6"
  "check_runs tcl_certified 422 tcl_small_table_7"
  "check_runs tcl_certified 482 tcl_small_table_8"
  "check_runs tcl_certified 542 tcl_small_table_9"
  "check_runs tcl_certified 602 tcl_small_table_10"
  "check_runs tcl_certified 662 tcl_small_table_11"
  by (simp_all add: tcl_small_table_defs tcl_run_defs tcl_check_simps)

lemma tcl_entries_small:
  "check_small tcl_certified tcl_LARGE_STATE_COUNT tcl_ts_small_parse_table_map tcl_ts_small_parse_table"
  by (rule check_small_runs [OF tcl_map_states tcl_map_runs tcl_runs_contiguous])
    (simp add: tcl_ts_small_parse_table_def check_runs_append tcl_table_lengths tcl_entries_pieces)

lemma tcl_walk_pieces:
  "certified_reductions tcl_incoming tcl_reductions_0 tcl_grammar"
  "certified_reductions tcl_incoming tcl_reductions_1 tcl_grammar"
  "certified_reductions tcl_incoming tcl_reductions_2 tcl_grammar"
  "certified_reductions tcl_incoming tcl_reductions_3 tcl_grammar"
  "certified_reductions tcl_incoming tcl_reductions_4 tcl_grammar"
  "certified_reductions tcl_incoming tcl_reductions_5 tcl_grammar"
  "certified_reductions tcl_incoming tcl_reductions_6 tcl_grammar"
  by (simp_all add: tcl_reductions_defs tcl_check_simps covers_production tcl_productions)

lemma tcl_walks: "certified_reductions tcl_incoming tcl_reductions tcl_grammar"
  using tcl_walk_pieces by (simp add: tcl_reductions_def certified_reductions_def)

lemma tcl_no_way_in: "array_of [] tcl_incoming 1 = []" "array_of [] tcl_incoming 0 = []"
  by (rule numbered_outside [OF tcl_incoming_states], simp)+

lemma tcl_symbols_pieces:
  "list_all (\<lambda>(q, A, n). A < tcl_SYMBOL_COUNT \<and> tcl_TOKEN_COUNT \<le> A) tcl_reductions_0"
  "list_all (\<lambda>(q, A, n). A < tcl_SYMBOL_COUNT \<and> tcl_TOKEN_COUNT \<le> A) tcl_reductions_1"
  "list_all (\<lambda>(q, A, n). A < tcl_SYMBOL_COUNT \<and> tcl_TOKEN_COUNT \<le> A) tcl_reductions_2"
  "list_all (\<lambda>(q, A, n). A < tcl_SYMBOL_COUNT \<and> tcl_TOKEN_COUNT \<le> A) tcl_reductions_3"
  "list_all (\<lambda>(q, A, n). A < tcl_SYMBOL_COUNT \<and> tcl_TOKEN_COUNT \<le> A) tcl_reductions_4"
  "list_all (\<lambda>(q, A, n). A < tcl_SYMBOL_COUNT \<and> tcl_TOKEN_COUNT \<le> A) tcl_reductions_5"
  "list_all (\<lambda>(q, A, n). A < tcl_SYMBOL_COUNT \<and> tcl_TOKEN_COUNT \<le> A) tcl_reductions_6"
  by (simp_all add: tcl_reductions_defs)

lemma tcl_incoming_below: "list_all (\<lambda>(q, ps). q < tcl_STATE_COUNT) tcl_incoming"
  by (rule numbered_states [OF tcl_incoming_states])

interpretation tcl_tables: certified_tables tree_sitter_tcl tcl_ts_parse_table tcl_ts_small_parse_table_map
    tcl_ts_small_parse_table tcl_ts_parse_actions tcl_incoming tcl_reductions tcl_grammar tcl_sym_source_file
  by unfold_locales
    (simp_all only: tcl_sizes tcl_entries_large tcl_entries_small tcl_walks tcl_no_way_in tcl_incoming_below,
     simp_all add: tcl_reductions_def tcl_symbols_pieces)

section \<open>Every entry is in bounds\<close>

lemma tcl_bounded_large: "check_large (bounded_entry tree_sitter_tcl tcl_ts_parse_actions) tcl_ts_parse_table"
  by (simp add: tcl_check_simps bounded_entry_def actions_decide_def tcl_sizes tcl_table_defs)

lemma tcl_bounded_pieces:
  "check_runs (bounded_entry tree_sitter_tcl tcl_ts_parse_actions) 2 tcl_small_table_0"
  "check_runs (bounded_entry tree_sitter_tcl tcl_ts_parse_actions) 62 tcl_small_table_1"
  "check_runs (bounded_entry tree_sitter_tcl tcl_ts_parse_actions) 122 tcl_small_table_2"
  "check_runs (bounded_entry tree_sitter_tcl tcl_ts_parse_actions) 182 tcl_small_table_3"
  "check_runs (bounded_entry tree_sitter_tcl tcl_ts_parse_actions) 242 tcl_small_table_4"
  "check_runs (bounded_entry tree_sitter_tcl tcl_ts_parse_actions) 302 tcl_small_table_5"
  "check_runs (bounded_entry tree_sitter_tcl tcl_ts_parse_actions) 362 tcl_small_table_6"
  "check_runs (bounded_entry tree_sitter_tcl tcl_ts_parse_actions) 422 tcl_small_table_7"
  "check_runs (bounded_entry tree_sitter_tcl tcl_ts_parse_actions) 482 tcl_small_table_8"
  "check_runs (bounded_entry tree_sitter_tcl tcl_ts_parse_actions) 542 tcl_small_table_9"
  "check_runs (bounded_entry tree_sitter_tcl tcl_ts_parse_actions) 602 tcl_small_table_10"
  "check_runs (bounded_entry tree_sitter_tcl tcl_ts_parse_actions) 662 tcl_small_table_11"
  by (simp_all add: tcl_small_table_defs tcl_run_defs tcl_check_simps bounded_entry_def actions_decide_def tcl_sizes)

lemma tcl_bounded_small:
  "check_small (bounded_entry tree_sitter_tcl tcl_ts_parse_actions) tcl_LARGE_STATE_COUNT
     tcl_ts_small_parse_table_map tcl_ts_small_parse_table"
  by (rule check_small_runs [OF tcl_map_states tcl_map_runs tcl_runs_contiguous])
    (simp add: tcl_ts_small_parse_table_def check_runs_append tcl_table_lengths tcl_bounded_pieces)

section \<open>Every reduction finds its entry\<close>

lemma tcl_gotos_numbered:
  "numbered 1 tcl_gotos_0 61"
  "numbered 61 tcl_gotos_1 121"
  "numbered 121 tcl_gotos_2 181"
  "numbered 181 tcl_gotos_3 241"
  "numbered 241 tcl_gotos_4 301"
  "numbered 301 tcl_gotos_5 361"
  "numbered 361 tcl_gotos_6 421"
  "numbered 421 tcl_gotos_7 481"
  "numbered 481 tcl_gotos_8 541"
  "numbered 541 tcl_gotos_9 601"
  "numbered 601 tcl_gotos_10 661"
  "numbered 661 tcl_gotos_11 717"
  by (simp_all add: tcl_gotos_defs numbered_def upt_rec)

lemma tcl_gotos_states: "numbered 1 tcl_gotos tcl_STATE_COUNT"
  unfolding tcl_gotos_def by ((rule numbered_append tcl_gotos_numbered [simplified One_nat_def [symmetric]])+)

lemmas tcl_gotos_piece = array_of_piece [OF numbered_distinct [OF tcl_gotos_states]]

lemma tcl_gotos_pieces:
  "set tcl_gotos_0 \<subseteq> set tcl_gotos"
  "set tcl_gotos_1 \<subseteq> set tcl_gotos"
  "set tcl_gotos_2 \<subseteq> set tcl_gotos"
  "set tcl_gotos_3 \<subseteq> set tcl_gotos"
  "set tcl_gotos_4 \<subseteq> set tcl_gotos"
  "set tcl_gotos_5 \<subseteq> set tcl_gotos"
  "set tcl_gotos_6 \<subseteq> set tcl_gotos"
  "set tcl_gotos_7 \<subseteq> set tcl_gotos"
  "set tcl_gotos_8 \<subseteq> set tcl_gotos"
  "set tcl_gotos_9 \<subseteq> set tcl_gotos"
  "set tcl_gotos_10 \<subseteq> set tcl_gotos"
  "set tcl_gotos_11 \<subseteq> set tcl_gotos"
  by (auto simp: tcl_gotos_def)

lemmas tcl_gotos_facts =
  tcl_gotos_piece [OF tcl_gotos_pieces(1), of "[]", simplified tcl_gotos_0_def list.pred_inject prod.case One_nat_def simp_thms]
  tcl_gotos_piece [OF tcl_gotos_pieces(2), of "[]", simplified tcl_gotos_1_def list.pred_inject prod.case One_nat_def simp_thms]
  tcl_gotos_piece [OF tcl_gotos_pieces(3), of "[]", simplified tcl_gotos_2_def list.pred_inject prod.case One_nat_def simp_thms]
  tcl_gotos_piece [OF tcl_gotos_pieces(4), of "[]", simplified tcl_gotos_3_def list.pred_inject prod.case One_nat_def simp_thms]
  tcl_gotos_piece [OF tcl_gotos_pieces(5), of "[]", simplified tcl_gotos_4_def list.pred_inject prod.case One_nat_def simp_thms]
  tcl_gotos_piece [OF tcl_gotos_pieces(6), of "[]", simplified tcl_gotos_5_def list.pred_inject prod.case One_nat_def simp_thms]
  tcl_gotos_piece [OF tcl_gotos_pieces(7), of "[]", simplified tcl_gotos_6_def list.pred_inject prod.case One_nat_def simp_thms]
  tcl_gotos_piece [OF tcl_gotos_pieces(8), of "[]", simplified tcl_gotos_7_def list.pred_inject prod.case One_nat_def simp_thms]
  tcl_gotos_piece [OF tcl_gotos_pieces(9), of "[]", simplified tcl_gotos_8_def list.pred_inject prod.case One_nat_def simp_thms]
  tcl_gotos_piece [OF tcl_gotos_pieces(10), of "[]", simplified tcl_gotos_9_def list.pred_inject prod.case One_nat_def simp_thms]
  tcl_gotos_piece [OF tcl_gotos_pieces(11), of "[]", simplified tcl_gotos_10_def list.pred_inject prod.case One_nat_def simp_thms]
  tcl_gotos_piece [OF tcl_gotos_pieces(12), of "[]", simplified tcl_gotos_11_def list.pred_inject prod.case One_nat_def simp_thms]

abbreviation tcl_has_entries :: "nat \<Rightarrow> TSSymbol list \<Rightarrow> bool" where
  "tcl_has_entries \<equiv> has_entries tcl_ts_parse_table tcl_LARGE_STATE_COUNT tcl_ts_small_parse_table_map
     tcl_ts_small_parse_table"

lemma tcl_entries_held:
  "list_all (\<lambda>(s, xs). tcl_has_entries s xs) tcl_gotos_0"
  "list_all (\<lambda>(s, xs). tcl_has_entries s xs) tcl_gotos_1"
  "list_all (\<lambda>(s, xs). tcl_has_entries s xs) tcl_gotos_2"
  "list_all (\<lambda>(s, xs). tcl_has_entries s xs) tcl_gotos_3"
  "list_all (\<lambda>(s, xs). tcl_has_entries s xs) tcl_gotos_4"
  "list_all (\<lambda>(s, xs). tcl_has_entries s xs) tcl_gotos_5"
  "list_all (\<lambda>(s, xs). tcl_has_entries s xs) tcl_gotos_6"
  "list_all (\<lambda>(s, xs). tcl_has_entries s xs) tcl_gotos_7"
  "list_all (\<lambda>(s, xs). tcl_has_entries s xs) tcl_gotos_8"
  "list_all (\<lambda>(s, xs). tcl_has_entries s xs) tcl_gotos_9"
  "list_all (\<lambda>(s, xs). tcl_has_entries s xs) tcl_gotos_10"
  "list_all (\<lambda>(s, xs). tcl_has_entries s xs) tcl_gotos_11"
  by (simp_all add: tcl_gotos_defs has_entries_def tcl_table_defs tcl_map_facts tcl_run_facts tcl_run_defs)

lemma tcl_uncovered:
  "list_all (\<lambda>(q, A, n). uncovers tcl_incoming (\<lambda>p. A \<in> set (array_of [] tcl_gotos p)) n q) tcl_reductions_0"
  "list_all (\<lambda>(q, A, n). uncovers tcl_incoming (\<lambda>p. A \<in> set (array_of [] tcl_gotos p)) n q) tcl_reductions_1"
  "list_all (\<lambda>(q, A, n). uncovers tcl_incoming (\<lambda>p. A \<in> set (array_of [] tcl_gotos p)) n q) tcl_reductions_2"
  "list_all (\<lambda>(q, A, n). uncovers tcl_incoming (\<lambda>p. A \<in> set (array_of [] tcl_gotos p)) n q) tcl_reductions_3"
  "list_all (\<lambda>(q, A, n). uncovers tcl_incoming (\<lambda>p. A \<in> set (array_of [] tcl_gotos p)) n q) tcl_reductions_4"
  "list_all (\<lambda>(q, A, n). uncovers tcl_incoming (\<lambda>p. A \<in> set (array_of [] tcl_gotos p)) n q) tcl_reductions_5"
  "list_all (\<lambda>(q, A, n). uncovers tcl_incoming (\<lambda>p. A \<in> set (array_of [] tcl_gotos p)) n q) tcl_reductions_6"
  by (simp_all add: tcl_reductions_defs tcl_check_simps tcl_gotos_facts)

lemma tcl_gotos_ok:
  "list_all (\<lambda>(q, A, n). uncovers tcl_incoming (\<lambda>p. has_entry tcl_ts_parse_table tcl_LARGE_STATE_COUNT
     tcl_ts_small_parse_table_map tcl_ts_small_parse_table p A) n q) tcl_reductions"
proof (rule gotos_uncover)
  show "list_all (\<lambda>(s, xs). tcl_has_entries s xs) tcl_gotos"
    by (simp add: tcl_gotos_def tcl_entries_held)
  show "list_all (\<lambda>(q, A, n). uncovers tcl_incoming (\<lambda>p. A \<in> set (array_of [] tcl_gotos p)) n q) tcl_reductions"
    by (simp add: tcl_reductions_def tcl_uncovered)
qed

interpretation tcl_live: live_tables tree_sitter_tcl tcl_ts_parse_table tcl_ts_small_parse_table_map
    tcl_ts_small_parse_table tcl_ts_parse_actions tcl_incoming tcl_reductions tcl_grammar tcl_sym_source_file
  by unfold_locales (simp add: tcl_sizes tcl_gotos_ok)

end
