(* ===== verification/Tcl_Parser.thy ===== *)
theory Tcl_Parser
  imports Tcl_Certificate
begin

text \<open>
  What the tables of the Tcl parser guarantee: what they accept is derivable in the grammar, hence
  nested and terminated; every entry is well formed; no reachable configuration is stuck; and the
  fields of a reduction are on its children.
\<close>

section \<open>Brackets and line ends in the grammar\<close>

text \<open>The brackets of Tcl, with the two parentheses the lexer tells apart.\<close>

definition tcl_closer :: "TSSymbol \<Rightarrow> TSSymbol option" where
  "tcl_closer x =
     (if x = tcl_anon_sym_LBRACE then Some tcl_anon_sym_RBRACE
      else if x = tcl_anon_sym_LBRACK then Some tcl_anon_sym_RBRACK
      else if x = tcl_anon_sym_LPAREN \<or> x = tcl_anon_sym_LPAREN2 then Some tcl_anon_sym_RPAREN
      else None)"

definition tcl_closers :: "TSSymbol list" where
  "tcl_closers = [tcl_anon_sym_RBRACE, tcl_anon_sym_RBRACK, tcl_anon_sym_RPAREN]"

definition tcl_terminators :: "TSSymbol set" where
  "tcl_terminators = {tcl_anon_sym_LF, tcl_anon_sym_SEMI}"

lemmas tcl_rule_defs =
  tcl_rule_source_file_def tcl_rule_regexp_def tcl_rule_while_def tcl_rule_expr_cmd_def
  tcl_rule_foreach_def tcl_rule_global_def tcl_rule_namespace_def tcl_rule_try_def
  tcl_rule_finally_def tcl_rule_hidden_command_def tcl_rule_command_def tcl_rule_word_list_def
  tcl_rule_hidden_word_simple_def tcl_rule_hidden_concat_word_def tcl_rule_hidden_ns_delim_def
  tcl_rule_hidden_id_immediate_def tcl_rule_id_def tcl_rule_array_index_def
  tcl_rule_variable_substitution_def tcl_rule_braced_word_def tcl_rule_braced_word_simple_def
  tcl_rule_set_def tcl_rule_procedure_def tcl_rule_hidden_argument_word_def tcl_rule_argument_def
  tcl_rule_arguments_def tcl_rule_hidden_expr_atom_no_brace_def tcl_rule_hidden_expr_def
  tcl_rule_expr_def tcl_rule_unary_expr_def tcl_rule_binop_expr_def tcl_rule_ternary_expr_def
  tcl_rule_elseif_def tcl_rule_else_def tcl_rule_if_def tcl_rule_hidden_conditional_def
  tcl_rule_catch_def tcl_rule_quoted_word_def tcl_rule_command_substitution_def

lemma tcl_nested_grammar: "nested_grammar tcl_closer tcl_closers [] tcl_grammar"
  unfolding nested_grammar_def tcl_grammar_def productions_all
  by (simp add: tcl_rules_def tcl_rule_defs tcl_inline_defs nested_def tcl_closer_def tcl_closers_def)

lemma tcl_ending_grammar:
  "ending_grammar (insert tcl_aux_sym_source_file_repeat1 tcl_terminators) tcl_grammar"
  unfolding ending_grammar_def tcl_grammar_def productions_all
  by (simp add: tcl_rules_def tcl_rule_defs tcl_inline_defs tcl_terminators_def)

lemma tcl_source_file_productions:
  "(tcl_sym_source_file, ys) \<in> set tcl_grammar \<Longrightarrow> ys = [] \<or> ys = [tcl_aux_sym_source_file_repeat1]"
proof -
  have "list_all (\<lambda>(A, ys). A = tcl_sym_source_file \<longrightarrow> ys = [] \<or> ys = [tcl_aux_sym_source_file_repeat1]) tcl_grammar"
    unfolding tcl_grammar_def productions_all
    by (simp add: tcl_rules_def tcl_rule_defs tcl_inline_defs)
  then show "(tcl_sym_source_file, ys) \<in> set tcl_grammar \<Longrightarrow> ?thesis"
    by (auto simp: list_all_iff)
qed

section \<open>A run\<close>

lemma tcl_actions_complete: "list_all (\<lambda>(k, es). complete_actions es) tcl_ts_parse_actions"
  by (simp add: tcl_ts_parse_actions_def tcl_action_defs action_macros)

lemmas tcl_read =
  table_actions_def tcl_init.large_value tcl_init.small_value tcl_init.actions_value [OF tcl_actions_complete]
  tcl_sizes tcl_map_facts tcl_run_facts tcl_run_defs tcl_action_facts tcl_table_defs

text \<open>A command of one word.\<close>

lemma tcl_word_entries:
  "table_actions tree_sitter_tcl 1 tcl_sym_simple_word = [TSParseActionTypeShift 108 False False]"
  "table_actions tree_sitter_tcl 108 tcl_anon_sym_LF = [TSParseActionTypeReduce 1 tcl_sym__concat_word 0 0]"
  "table_value tree_sitter_tcl 1 tcl_sym__concat_word = 97"
  "table_actions tree_sitter_tcl 97 tcl_anon_sym_LF = [TSParseActionTypeReduce 1 tcl_sym_command 0 1]"
  "table_value tree_sitter_tcl 1 tcl_sym_command = 602"
  "table_actions tree_sitter_tcl 602 tcl_anon_sym_LF = [TSParseActionTypeShift 72 False False]"
  "table_actions tree_sitter_tcl 72 0 = [TSParseActionTypeReduce 2 tcl_aux_sym_source_file_repeat1 0 0]"
  "table_value tree_sitter_tcl 1 tcl_aux_sym_source_file_repeat1 = 5"
  "table_actions tree_sitter_tcl 5 0 = [TSParseActionTypeReduce 1 tcl_sym_source_file 0 0]"
  "table_value tree_sitter_tcl 1 tcl_sym_source_file = 670"
  "table_actions tree_sitter_tcl 670 0 = [TSParseActionTypeAccept]"
  by (simp_all add: tcl_read)

lemmas tcl_word_reads = tcl_word_entries tcl_word_entries [unfolded One_nat_def]

lemma tcl_word_shifted:
  "(lr_step tree_sitter_tcl)\<^sup>*\<^sup>* ([1], [tcl_sym_simple_word, tcl_anon_sym_LF, 0]) ([108, 1], [tcl_anon_sym_LF, 0])"
  by (rule lr_shift_run [OF _ rtranclp.rtrancl_refl]) (simp add: tcl_word_reads)

lemma tcl_word_command:
  "(lr_step tree_sitter_tcl)\<^sup>*\<^sup>* ([108, 1], [tcl_anon_sym_LF, 0]) ([72, 602, 1], [0])"
proof (rule lr_reduce_run)
  show "(lr_step tree_sitter_tcl)\<^sup>*\<^sup>* ([97, 1], [tcl_anon_sym_LF, 0]) ([72, 602, 1], [0])"
  proof (rule lr_reduce_run)
    show "(lr_step tree_sitter_tcl)\<^sup>*\<^sup>* ([602, 1], [tcl_anon_sym_LF, 0]) ([72, 602, 1], [0])"
      by (rule lr_shift_run [OF _ rtranclp.rtrancl_refl]) (simp add: tcl_word_reads)
  qed (simp add: tcl_word_reads, simp_all add: tcl_word_reads)
qed (simp add: tcl_word_reads, simp_all add: tcl_word_reads)

lemma tcl_word_end: "(lr_step tree_sitter_tcl)\<^sup>*\<^sup>* ([72, 602, 1], [0]) ([670, 1], [0])"
proof (rule lr_reduce_run)
  show "(lr_step tree_sitter_tcl)\<^sup>*\<^sup>* ([5, 1], [0]) ([670, 1], [0])"
    by (rule lr_reduce_run [OF _ _ tcl_word_entries(10) _ rtranclp.rtrancl_refl, of 1]) (simp_all add: tcl_word_reads)
qed (simp add: tcl_word_reads, simp_all add: tcl_word_reads)

lemma tcl_word_accepted: "lr_accepts tree_sitter_tcl [tcl_sym_simple_word, tcl_anon_sym_LF]"
  unfolding lr_accepts_def
  using rtranclp_trans [OF rtranclp_trans [OF tcl_word_shifted tcl_word_command] tcl_word_end]
    tcl_word_entries(11) by force

section \<open>Fields\<close>

lemmas tcl_field_defs =
  production_fields_def tree_sitter_tcl_def tcl_ts_field_map_slices_def tcl_ts_field_map_entries_def

lemma tcl_production_fields:
  "production_fields tree_sitter_tcl 0 = []"
    "production_fields tree_sitter_tcl 1 = [\<lparr>field_id = tcl_field_name, child_index = 0,
    inherited = False\<rparr>]"
    "production_fields tree_sitter_tcl 2 = [\<lparr>field_id = tcl_field_name, child_index = 0,
    inherited = False\<rparr>, \<lparr>field_id = tcl_field_name, child_index = 1, inherited =
    False\<rparr>]"
    "production_fields tree_sitter_tcl 3 = [\<lparr>field_id = tcl_field_consequence, child_index
    = 1, inherited = False\<rparr>]"
    "production_fields tree_sitter_tcl 4 = [\<lparr>field_id = tcl_field_arguments, child_index =
    1, inherited = False\<rparr>, \<lparr>field_id = tcl_field_name, child_index = 0, inherited =
    False\<rparr>]"
    "production_fields tree_sitter_tcl 5 = [\<lparr>field_id = tcl_field_arguments, child_index =
    2, inherited = False\<rparr>, \<lparr>field_id = tcl_field_name, child_index = 0, inherited =
    False\<rparr>, \<lparr>field_id = tcl_field_name, child_index = 1, inherited = False\<rparr>]"
    "production_fields tree_sitter_tcl 6 = [\<lparr>field_id = tcl_field_condition, child_index =
    1, inherited = False\<rparr>, \<lparr>field_id = tcl_field_consequence, child_index = 2,
    inherited = False\<rparr>]"
    "production_fields tree_sitter_tcl 7 = [\<lparr>field_id = tcl_field_consequence, child_index
    = 1, inherited = False\<rparr>, \<lparr>field_id = tcl_field_consequence, child_index = 2,
    inherited = False\<rparr>]"
    "production_fields tree_sitter_tcl 8 = [\<lparr>field_id = tcl_field_arguments, child_index =
    2, inherited = False\<rparr>, \<lparr>field_id = tcl_field_body, child_index = 3, inherited =
    False\<rparr>, \<lparr>field_id = tcl_field_name, child_index = 1, inherited = False\<rparr>]"
    "production_fields tree_sitter_tcl 9 = [\<lparr>field_id = tcl_field_condition, child_index =
    1, inherited = False\<rparr>, \<lparr>field_id = tcl_field_consequence, child_index = 2,
    inherited = False\<rparr>, \<lparr>field_id = tcl_field_consequence, child_index = 3,
    inherited = False\<rparr>]"
    "production_fields tree_sitter_tcl 10 = [\<lparr>field_id = tcl_field_alternative, child_index
    = 0, inherited = False\<rparr>]"
    "production_fields tree_sitter_tcl 11 = [\<lparr>field_id = tcl_field_alternative, child_index
    = 3, inherited = False\<rparr>, \<lparr>field_id = tcl_field_condition, child_index = 1,
    inherited = False\<rparr>, \<lparr>field_id = tcl_field_consequence, child_index = 2,
    inherited = False\<rparr>]"
    "production_fields tree_sitter_tcl 12 = [\<lparr>field_id = tcl_field_alternative, child_index
    = 3, inherited = True\<rparr>, \<lparr>field_id = tcl_field_condition, child_index = 1,
    inherited = False\<rparr>, \<lparr>field_id = tcl_field_consequence, child_index = 2,
    inherited = False\<rparr>]"
    "production_fields tree_sitter_tcl 13 = [\<lparr>field_id = tcl_field_name, child_index = 1,
    inherited = False\<rparr>]"
    "production_fields tree_sitter_tcl 14 = [\<lparr>field_id = tcl_field_arguments, child_index =
    3, inherited = False\<rparr>, \<lparr>field_id = tcl_field_body, child_index = 4, inherited =
    False\<rparr>, \<lparr>field_id = tcl_field_name, child_index = 1, inherited = False\<rparr>,
    \<lparr>field_id = tcl_field_name, child_index = 2, inherited = False\<rparr>]"
    "production_fields tree_sitter_tcl 15 = [\<lparr>field_id = tcl_field_arguments, child_index =
    2, inherited = False\<rparr>, \<lparr>field_id = tcl_field_body, child_index = 3, inherited =
    False\<rparr>, \<lparr>field_id = tcl_field_body, child_index = 4, inherited = False\<rparr>,
    \<lparr>field_id = tcl_field_name, child_index = 1, inherited = False\<rparr>]"
    "production_fields tree_sitter_tcl 16 = [\<lparr>field_id = tcl_field_alternative, child_index
    = 4, inherited = False\<rparr>, \<lparr>field_id = tcl_field_condition, child_index = 1,
    inherited = False\<rparr>, \<lparr>field_id = tcl_field_consequence, child_index = 2,
    inherited = False\<rparr>, \<lparr>field_id = tcl_field_consequence, child_index = 3,
    inherited = False\<rparr>]"
    "production_fields tree_sitter_tcl 17 = [\<lparr>field_id = tcl_field_alternative, child_index
    = 4, inherited = True\<rparr>, \<lparr>field_id = tcl_field_condition, child_index = 1,
    inherited = False\<rparr>, \<lparr>field_id = tcl_field_consequence, child_index = 2,
    inherited = False\<rparr>, \<lparr>field_id = tcl_field_consequence, child_index = 3,
    inherited = False\<rparr>]"
    "production_fields tree_sitter_tcl 18 = [\<lparr>field_id = tcl_field_alternative, child_index
    = 3, inherited = True\<rparr>, \<lparr>field_id = tcl_field_alternative, child_index = 4,
    inherited = False\<rparr>, \<lparr>field_id = tcl_field_condition, child_index = 1, inherited
    = False\<rparr>, \<lparr>field_id = tcl_field_consequence, child_index = 2, inherited =
    False\<rparr>]"
    "production_fields tree_sitter_tcl 19 = [\<lparr>field_id = tcl_field_alternative, child_index
    = 0, inherited = True\<rparr>, \<lparr>field_id = tcl_field_alternative, child_index = 1,
    inherited = True\<rparr>]"
    "production_fields tree_sitter_tcl 20 = [\<lparr>field_id = tcl_field_default, child_index =
    2, inherited = False\<rparr>, \<lparr>field_id = tcl_field_name, child_index = 1, inherited =
    False\<rparr>]"
    "production_fields tree_sitter_tcl 21 = [\<lparr>field_id = tcl_field_arguments, child_index =
    3, inherited = False\<rparr>, \<lparr>field_id = tcl_field_body, child_index = 4, inherited =
    False\<rparr>, \<lparr>field_id = tcl_field_body, child_index = 5, inherited = False\<rparr>,
    \<lparr>field_id = tcl_field_name, child_index = 1, inherited = False\<rparr>,
    \<lparr>field_id = tcl_field_name, child_index = 2, inherited = False\<rparr>]"
    "production_fields tree_sitter_tcl 22 = [\<lparr>field_id = tcl_field_alternative, child_index
    = 4, inherited = True\<rparr>, \<lparr>field_id = tcl_field_alternative, child_index = 5,
    inherited = False\<rparr>, \<lparr>field_id = tcl_field_condition, child_index = 1, inherited
    = False\<rparr>, \<lparr>field_id = tcl_field_consequence, child_index = 2, inherited =
    False\<rparr>, \<lparr>field_id = tcl_field_consequence, child_index = 3, inherited =
    False\<rparr>]"
  by (simp_all add: tcl_field_defs upt_rec)

lemma tcl_field_names: "field_names tree_sitter_tcl = Some (array_of None tcl_ts_field_names)"
  by (simp add: tree_sitter_tcl_def)

lemma tcl_field_count: "field_count tree_sitter_tcl = tcl_FIELD_COUNT"
  by (simp add: tree_sitter_tcl_def)

lemma tcl_fields_pieces:
  "list_all (\<lambda>(k, es). list_all (fields_ok tree_sitter_tcl) (the_actions es)) tcl_parse_actions_0"
  "list_all (\<lambda>(k, es). list_all (fields_ok tree_sitter_tcl) (the_actions es)) tcl_parse_actions_1"
  "list_all (\<lambda>(k, es). list_all (fields_ok tree_sitter_tcl) (the_actions es)) tcl_parse_actions_2"
  "list_all (\<lambda>(k, es). list_all (fields_ok tree_sitter_tcl) (the_actions es)) tcl_parse_actions_3"
  "list_all (\<lambda>(k, es). list_all (fields_ok tree_sitter_tcl) (the_actions es)) tcl_parse_actions_4"
  "list_all (\<lambda>(k, es). list_all (fields_ok tree_sitter_tcl) (the_actions es)) tcl_parse_actions_5"
  "list_all (\<lambda>(k, es). list_all (fields_ok tree_sitter_tcl) (the_actions es)) tcl_parse_actions_6"
  "list_all (\<lambda>(k, es). list_all (fields_ok tree_sitter_tcl) (the_actions es)) tcl_parse_actions_7"
  by (simp_all add: tcl_action_defs action_macros tcl_production_fields
      tcl_production_fields [unfolded One_nat_def] field_ok_def tcl_field_names tcl_ts_field_names_def
      tcl_field_count)

section \<open>Properties\<close>

text \<open>
  Property C3. The Tcl parser is sound: every sequence of tokens its tables accept is derivable in
  the grammar of \<^verbatim>\<open>grammar.json\<close> from \<^verbatim>\<open>source_file\<close>.
\<close>

theorem tcl_parser_sound:
  assumes "lr_accepts tree_sitter_tcl w" and "\<forall>t \<in> set w. t < token_count tree_sitter_tcl"
  shows "derives tcl_grammar [tcl_sym_source_file] w"
  by (rule tcl_tables.accepted_derivable [OF assms])

theorem tcl_parser_sound_witness:
  "derives tcl_grammar [tcl_sym_source_file] [tcl_sym_simple_word, tcl_anon_sym_LF]"
  using tcl_parser_sound [OF tcl_word_accepted] by (simp add: tcl_sizes)

text \<open>
  Property C12. What the Tcl parser accepts has its braces, brackets and parentheses properly
  nested, and is empty or ends in a line end or a semicolon: the parser rejects a source whose last command
  is not terminated.
\<close>

theorem tcl_accepted_structure:
  assumes "lr_accepts tree_sitter_tcl w" and "\<forall>t \<in> set w. t < token_count tree_sitter_tcl"
  shows "nested tcl_closer tcl_closers [] w \<and> (w = [] \<or> last w \<in> tcl_terminators)"
proof -
  have w: "derives tcl_grammar [tcl_sym_source_file] w"
    by (rule tcl_tables.accepted_derivable [OF assms])
  have nesting: "nested tcl_closer tcl_closers [] w"
    using derives_nest [OF tcl_nested_grammar w, of "[]" "[]"] by (simp add: nested_def tcl_closer_def tcl_closers_def)
  have "w \<noteq> [tcl_sym_source_file]"
    using assms(2) by (auto simp: tcl_sizes)
  then obtain ys where ys: "(tcl_sym_source_file, ys) \<in> set tcl_grammar" "derives tcl_grammar ys w"
    using derives_single [OF w] by blast
  have "w = [] \<or> last w \<in> insert tcl_aux_sym_source_file_repeat1 tcl_terminators \<and> w \<noteq> []"
    using tcl_source_file_productions [OF ys(1)] ys(2) derives_last [OF tcl_ending_grammar ys(2)]
    by (auto simp: derives_empty)
  moreover have "w \<noteq> [] \<Longrightarrow> last w < tcl_TOKEN_COUNT"
    using assms(2) by (simp add: tcl_sizes)
  ultimately have "w = [] \<or> last w \<in> tcl_terminators"
    by auto
  with nesting show ?thesis by blast
qed

theorem tcl_accepted_structure_witness:
  "nested tcl_closer tcl_closers [] [tcl_sym_simple_word, tcl_anon_sym_LF] \<and>
    last [tcl_sym_simple_word, tcl_anon_sym_LF] \<in> tcl_terminators"
  using tcl_accepted_structure [OF tcl_word_accepted] by (simp add: tcl_sizes)

text \<open>
  Property C31. The Tcl parser's tables are well formed and free of conflicts: each non-zero entry of a
  token decodes to actions that name existing states, non-terminals and productions, of
  which exactly one is not a repetition; each non-zero entry of a non-terminal is an existing state.
\<close>

theorem tcl_tables_well_formed:
  assumes "s < state_count tree_sitter_tcl" and "x < symbol_count tree_sitter_tcl"
    and "table_value tree_sitter_tcl s x \<noteq> 0"
  shows "if x < token_count tree_sitter_tcl
    then list_all (action_in_bounds tree_sitter_tcl) (table_actions tree_sitter_tcl s x) \<and>
      actions_decide (table_actions tree_sitter_tcl s x)
    else table_value tree_sitter_tcl s x < state_count tree_sitter_tcl"
  using tcl_init.bounded [OF tcl_bounded_large _ assms] tcl_bounded_small by (simp add: tcl_sizes)

theorem tcl_tables_well_formed_witness:
  "actions_decide (table_actions tree_sitter_tcl 602 tcl_anon_sym_LF)"
proof -
  have "table_value tree_sitter_tcl 602 tcl_anon_sym_LF \<noteq> 0"
    by (simp add: tcl_read)
  then show ?thesis
    using tcl_tables_well_formed [of 602 tcl_anon_sym_LF] by (simp add: tcl_sizes)
qed

text \<open>
  Property C30. The Tcl parser never gets stuck on its own tables: in every configuration
  reached from the start, each action the tables hold for the next token can be taken, also where
  an entry holds several: a shift reads the token and enters its state, a reduction finds enough
  symbols on the stack and an entry for its symbol in the state it uncovers, and goes there, and the tables accept at
  the end marker only.
\<close>

theorem tcl_parser_not_stuck:
  assumes "(lr_step tree_sitter_tcl)\<^sup>*\<^sup>* ([1], w @ [0]) (s # ss, t # ts)"
    and "\<forall>x \<in> set w. x < token_count tree_sitter_tcl"
    and "a \<in> set (table_actions tree_sitter_tcl s t)"
  shows "takes_action tree_sitter_tcl (s # ss, t # ts) a"
  by (rule tcl_live.action_taken [OF assms])

theorem tcl_parser_not_stuck_witness:
  "takes_action tree_sitter_tcl ([108, 1], [tcl_anon_sym_LF, 0]) (TSParseActionTypeReduce 1 tcl_sym__concat_word 0 0)"
proof (rule tcl_parser_not_stuck)
  show "(lr_step tree_sitter_tcl)\<^sup>*\<^sup>* ([1], [tcl_sym_simple_word, tcl_anon_sym_LF] @ [0]) ([108, 1], [tcl_anon_sym_LF, 0])"
    using tcl_word_shifted by simp
  show "TSParseActionTypeReduce 1 tcl_sym__concat_word 0 0 \<in> set (table_actions tree_sitter_tcl 108 tcl_anon_sym_LF)"
    by (simp add: tcl_word_entries)
qed (simp_all add: tcl_sizes)

text \<open>
  Property C33. The fields of a reduction are on its children: whatever production a reduction of the
  tables names, each field entry of the production has a field of the language, with a name, and an index
  below the number of children the reduction takes.
\<close>

theorem tcl_fields_on_children:
  assumes "s < state_count tree_sitter_tcl" and "t < token_count tree_sitter_tcl"
    and "TSParseActionTypeReduce n A prec pid \<in> set (table_actions tree_sitter_tcl s t)"
    and "e \<in> set (production_fields tree_sitter_tcl pid)"
  shows "child_index e < n \<and> 0 < field_id e \<and> field_id e \<le> field_count tree_sitter_tcl \<and>
    (\<exists>names f. field_names tree_sitter_tcl = Some names \<and> names (field_id e) = Some f)"
proof -
  obtain k es where run: "(k, es) \<in> set tcl_ts_parse_actions"
      "TSParseActionTypeReduce n A prec pid \<in> set (the_actions es)"
    using tcl_init.table_action_in_run [OF tcl_bounded_large _ assms(1,2) _ assms(3)] tcl_bounded_small
    by (auto simp: tcl_sizes)
  have "list_all (\<lambda>(k, es). list_all (fields_ok tree_sitter_tcl) (the_actions es)) tcl_ts_parse_actions"
    by (simp add: tcl_ts_parse_actions_def tcl_fields_pieces)
  with run have "fields_ok tree_sitter_tcl (TSParseActionTypeReduce n A prec pid)"
    by (fastforce simp: list_all_iff)
  with assms(4) show ?thesis
    by (simp add: list_all_iff field_ok_def)
qed

theorem tcl_fields_on_children_witness:
  "child_index \<lparr>field_id = tcl_field_name, child_index = 0, inherited = False\<rparr> < 1"
  by (rule conjunct1 [OF tcl_fields_on_children [of 97 tcl_anon_sym_LF 1 tcl_sym_command 0 1]])
    (simp_all add: tcl_sizes tcl_word_reads tcl_production_fields [unfolded One_nat_def])

end
