(* ===== verification/Tcl_Parse.thy ===== *)
theory Tcl_Parse
  imports Tcl_Text Tcl_Parser
begin

text \<open>
  The lexers and the tables of the Tcl parser together: whatever token the tables have an action for,
  the lexer can return in the mode of that state, by itself or through the keyword lexer, or the
  external scanner is asked for it.
\<close>

section \<open>A text for each token\<close>

definition tcl_sample :: "TSSymbol \<Rightarrow> codepoint list" where
  "tcl_sample = array_of []
    [(ts_builtin_sym_end, []),
     (tcl_sym_simple_word, [CH_a]),
     (tcl_anon_sym_LF, [CH_LF]),
     (tcl_anon_sym_SEMI, [CH_SEMICOLON]),
     (tcl_sym_comment, [CH_HASH]),
     (tcl_anon_sym_regexp, [CH_r, CH_e, CH_g, CH_e, CH_x, CH_p]),
     (tcl_anon_sym_while, [CH_w, CH_h, CH_i, CH_l, CH_e]),
     (tcl_anon_sym_expr, [CH_e, CH_x, CH_p, CH_r]),
     (tcl_anon_sym_foreach, [CH_f, CH_o, CH_r, CH_e, CH_a, CH_c, CH_h]),
     (tcl_anon_sym_global, [CH_g, CH_l, CH_o, CH_b, CH_a, CH_l]),
     (tcl_anon_sym_namespace, [CH_n, CH_a, CH_m, CH_e, CH_s, CH_p, CH_a, CH_c, CH_e]),
     (tcl_anon_sym_try, [CH_t, CH_r, CH_y]),
     (tcl_anon_sym_on, [CH_o, CH_n]),
     (tcl_anon_sym_error, [CH_e, CH_r, CH_r, CH_o, CH_r]),
     (tcl_anon_sym_finally, [CH_f, CH_i, CH_n, CH_a, CH_l, CH_l, CH_y]),
     (tcl_sym_unpack, [CH_LBRACE, CH_STAR, CH_RBRACE]),
     (tcl_anon_sym_COLON_COLON, [CH_COLON, CH_COLON]),
     (tcl_sym__ident_imm, [CH_a]),
     (tcl_sym__ident, [CH_a]),
     (tcl_anon_sym_COLON_COLON2, [CH_COLON, CH_COLON]),
     (tcl_anon_sym_LPAREN, [CH_LPAREN]),
     (tcl_anon_sym_RPAREN, [CH_RPAREN]),
     (tcl_anon_sym_DOLLAR, [CH_DOLLAR]),
     (tcl_anon_sym_LBRACE, [CH_LBRACE]),
     (tcl_aux_sym_variable_substitution_token1, [CH_a]),
     (tcl_anon_sym_RBRACE, [CH_RBRACE]),
     (tcl_anon_sym_set, [CH_s, CH_e, CH_t]),
     (tcl_anon_sym_proc, [CH_p, CH_r, CH_o, CH_c]),
     (tcl_sym_number, [50]),
     (tcl_sym__boolean, [CH_t, CH_r, CH_u, CH_e]),
     (tcl_anon_sym_LPAREN2, [CH_LPAREN]),
     (tcl_anon_sym_DASH, [CH_MINUS]),
     (tcl_anon_sym_PLUS, [CH_PLUS]),
     (tcl_anon_sym_TILDE, [126]),
     (tcl_anon_sym_BANG, [CH_BANG]),
     (tcl_anon_sym_STAR_STAR, [CH_STAR, CH_STAR]),
     (tcl_anon_sym_SLASH, [CH_SLASH]),
     (tcl_anon_sym_STAR, [CH_STAR]),
     (tcl_anon_sym_PERCENT, [CH_PERCENT]),
     (tcl_anon_sym_LT_LT, [CH_LT, CH_LT]),
     (tcl_anon_sym_GT_GT, [CH_GT, CH_GT]),
     (tcl_anon_sym_GT, [CH_GT]),
     (tcl_anon_sym_LT, [CH_LT]),
     (tcl_anon_sym_GT_EQ, [CH_GT, CH_EQUALS]),
     (tcl_anon_sym_LT_EQ, [CH_LT, CH_EQUALS]),
     (tcl_anon_sym_EQ_EQ, [CH_EQUALS, CH_EQUALS]),
     (tcl_anon_sym_BANG_EQ, [CH_BANG, CH_EQUALS]),
     (tcl_anon_sym_eq, [CH_e, CH_q]),
     (tcl_anon_sym_ne, [CH_n, CH_e]),
     (tcl_anon_sym_in, [CH_i, CH_n]),
     (tcl_anon_sym_ni, [CH_n, CH_i]),
     (tcl_anon_sym_AMP, [CH_AMP]),
     (tcl_anon_sym_CARET, [CH_CARET]),
     (tcl_anon_sym_PIPE, [CH_BAR]),
     (tcl_anon_sym_AMP_AMP, [CH_AMP, CH_AMP]),
     (tcl_anon_sym_PIPE_PIPE, [CH_BAR, CH_BAR]),
     (tcl_anon_sym_QMARK, [CH_QMARK]),
     (tcl_anon_sym_COLON, [CH_COLON]),
     (tcl_anon_sym_elseif, [CH_e, CH_l, CH_s, CH_e, CH_i, CH_f]),
     (tcl_anon_sym_else, [CH_e, CH_l, CH_s, CH_e]),
     (tcl_anon_sym_if, [CH_i, CH_f]),
     (tcl_anon_sym_catch, [CH_c, CH_a, CH_t, CH_c, CH_h]),
     (tcl_anon_sym_DQUOTE, [CH_DQUOTE]),
     (tcl_sym_escaped_character, [CH_BACKSLASH, CH_a]),
     (tcl_sym__quoted_word_content, [CH_SPACE]),
     (tcl_anon_sym_LBRACK, [CH_LBRACKET]),
     (tcl_anon_sym_RBRACK, [CH_RBRACKET])]"

text \<open>
  What the main lexer finds in it: the token, or a word when the token is a keyword.
\<close>

definition tcl_keyword_tokens :: "TSSymbol list" where
  "tcl_keyword_tokens = [tcl_anon_sym_regexp, tcl_anon_sym_while, tcl_anon_sym_expr,
   tcl_anon_sym_foreach, tcl_anon_sym_global, tcl_anon_sym_namespace, tcl_anon_sym_try,
   tcl_anon_sym_error, tcl_anon_sym_set, tcl_anon_sym_proc, tcl_anon_sym_if, tcl_anon_sym_catch]"

definition tcl_captured :: "TSSymbol \<Rightarrow> TSSymbol" where
  "tcl_captured x = (if x \<in> set tcl_keyword_tokens then tcl_sym_simple_word else x)"

text \<open>The tokens each lex mode has to provide.\<close>

definition tcl_mode_tokens :: "(TSStateId \<times> TSSymbol list) list" where
  "tcl_mode_tokens =
    [(0, [ts_builtin_sym_end, tcl_anon_sym_RPAREN, tcl_anon_sym_RBRACE, tcl_anon_sym_RBRACK]),
     (12, [tcl_anon_sym_LF, tcl_anon_sym_SEMI, tcl_anon_sym_on, tcl_anon_sym_finally,
      tcl_anon_sym_COLON_COLON, tcl_anon_sym_LPAREN, tcl_anon_sym_RBRACE, tcl_anon_sym_elseif,
      tcl_anon_sym_else]),
     (28, [tcl_sym_simple_word, tcl_anon_sym_LF, tcl_anon_sym_SEMI, tcl_sym_unpack,
      tcl_anon_sym_COLON_COLON, tcl_anon_sym_LPAREN, tcl_anon_sym_DOLLAR, tcl_anon_sym_LBRACE,
      tcl_anon_sym_RBRACE, tcl_anon_sym_DQUOTE, tcl_sym_escaped_character, tcl_anon_sym_LBRACK]),
     (29, [tcl_sym_simple_word, tcl_anon_sym_LF, tcl_anon_sym_SEMI, tcl_sym_unpack,
      tcl_anon_sym_LPAREN, tcl_anon_sym_DOLLAR, tcl_anon_sym_LBRACE, tcl_anon_sym_RBRACE,
      tcl_anon_sym_DQUOTE, tcl_sym_escaped_character, tcl_anon_sym_LBRACK]),
     (31, [tcl_sym_simple_word, tcl_anon_sym_LF, tcl_anon_sym_SEMI, tcl_anon_sym_COLON_COLON,
      tcl_anon_sym_LPAREN, tcl_anon_sym_DOLLAR, tcl_anon_sym_LBRACE, tcl_anon_sym_RBRACE,
      tcl_anon_sym_DQUOTE, tcl_sym_escaped_character, tcl_anon_sym_LBRACK]),
     (32, [tcl_sym_simple_word, tcl_anon_sym_LF, tcl_anon_sym_SEMI, tcl_anon_sym_LPAREN,
      tcl_anon_sym_DOLLAR, tcl_anon_sym_LBRACE, tcl_anon_sym_RBRACE, tcl_anon_sym_DQUOTE,
      tcl_sym_escaped_character, tcl_anon_sym_LBRACK]),
     (34, [tcl_sym_simple_word, tcl_anon_sym_DOLLAR, tcl_anon_sym_LBRACE, tcl_sym_number,
      tcl_sym__boolean, tcl_anon_sym_LPAREN2, tcl_anon_sym_DASH, tcl_anon_sym_PLUS,
      tcl_anon_sym_TILDE, tcl_anon_sym_BANG, tcl_anon_sym_DQUOTE, tcl_sym_escaped_character,
      tcl_anon_sym_LBRACK]),
     (35, [tcl_anon_sym_on, tcl_anon_sym_finally, tcl_anon_sym_COLON_COLON, tcl_anon_sym_LPAREN,
      tcl_anon_sym_RPAREN, tcl_anon_sym_LBRACE, tcl_anon_sym_RBRACE, tcl_anon_sym_DASH,
      tcl_anon_sym_PLUS, tcl_anon_sym_STAR_STAR, tcl_anon_sym_SLASH, tcl_anon_sym_STAR,
      tcl_anon_sym_PERCENT, tcl_anon_sym_LT_LT, tcl_anon_sym_GT_GT, tcl_anon_sym_GT,
      tcl_anon_sym_LT, tcl_anon_sym_GT_EQ, tcl_anon_sym_LT_EQ, tcl_anon_sym_EQ_EQ,
      tcl_anon_sym_BANG_EQ, tcl_anon_sym_eq, tcl_anon_sym_ne, tcl_anon_sym_in, tcl_anon_sym_ni,
      tcl_anon_sym_AMP, tcl_anon_sym_CARET, tcl_anon_sym_PIPE, tcl_anon_sym_AMP_AMP,
      tcl_anon_sym_PIPE_PIPE, tcl_anon_sym_QMARK, tcl_anon_sym_COLON, tcl_anon_sym_elseif,
      tcl_anon_sym_else, tcl_anon_sym_RBRACK]),
     (36, [tcl_anon_sym_LPAREN, tcl_anon_sym_RPAREN, tcl_anon_sym_RBRACE, tcl_anon_sym_DASH,
      tcl_anon_sym_PLUS, tcl_anon_sym_STAR_STAR, tcl_anon_sym_SLASH, tcl_anon_sym_STAR,
      tcl_anon_sym_PERCENT, tcl_anon_sym_LT_LT, tcl_anon_sym_GT_GT, tcl_anon_sym_GT,
      tcl_anon_sym_LT, tcl_anon_sym_GT_EQ, tcl_anon_sym_LT_EQ, tcl_anon_sym_EQ_EQ,
      tcl_anon_sym_BANG_EQ, tcl_anon_sym_eq, tcl_anon_sym_ne, tcl_anon_sym_in, tcl_anon_sym_ni,
      tcl_anon_sym_AMP, tcl_anon_sym_CARET, tcl_anon_sym_PIPE, tcl_anon_sym_AMP_AMP,
      tcl_anon_sym_PIPE_PIPE, tcl_anon_sym_QMARK, tcl_anon_sym_COLON, tcl_anon_sym_RBRACK]),
     (39, [tcl_sym_simple_word, tcl_sym_comment, tcl_anon_sym_regexp, tcl_anon_sym_while,
      tcl_anon_sym_expr, tcl_anon_sym_foreach, tcl_anon_sym_global, tcl_anon_sym_namespace,
      tcl_anon_sym_try, tcl_sym_unpack, tcl_anon_sym_DOLLAR, tcl_anon_sym_LBRACE,
      tcl_anon_sym_RBRACE, tcl_anon_sym_set, tcl_anon_sym_proc, tcl_anon_sym_elseif,
      tcl_anon_sym_else, tcl_anon_sym_if, tcl_anon_sym_catch, tcl_anon_sym_DQUOTE,
      tcl_sym_escaped_character, tcl_anon_sym_LBRACK]),
     (40, [tcl_sym_simple_word, tcl_sym_unpack, tcl_anon_sym_COLON_COLON, tcl_anon_sym_LPAREN,
      tcl_anon_sym_DOLLAR, tcl_anon_sym_LBRACE, tcl_anon_sym_DQUOTE, tcl_sym_escaped_character,
      tcl_anon_sym_LBRACK, tcl_anon_sym_RBRACK]),
     (41, [tcl_sym_simple_word, tcl_anon_sym_COLON_COLON, tcl_anon_sym_LPAREN,
      tcl_anon_sym_DOLLAR, tcl_anon_sym_LBRACE, tcl_anon_sym_RBRACE, tcl_anon_sym_DQUOTE,
      tcl_sym_escaped_character, tcl_anon_sym_LBRACK, tcl_anon_sym_RBRACK]),
     (42, [tcl_anon_sym_COLON_COLON, tcl_anon_sym_LPAREN, tcl_anon_sym_DOLLAR,
      tcl_anon_sym_DQUOTE, tcl_sym_escaped_character, tcl_sym__quoted_word_content,
      tcl_anon_sym_LBRACK]),
     (43, [tcl_sym_simple_word, tcl_sym_unpack, tcl_anon_sym_LPAREN, tcl_anon_sym_DOLLAR,
      tcl_anon_sym_LBRACE, tcl_anon_sym_DQUOTE, tcl_sym_escaped_character, tcl_anon_sym_LBRACK,
      tcl_anon_sym_RBRACK]),
     (44, [tcl_sym_simple_word, tcl_anon_sym_LPAREN, tcl_anon_sym_DOLLAR, tcl_anon_sym_LBRACE,
      tcl_anon_sym_RBRACE, tcl_anon_sym_DQUOTE, tcl_sym_escaped_character, tcl_anon_sym_LBRACK,
      tcl_anon_sym_RBRACK]),
     (45, [tcl_anon_sym_LPAREN, tcl_anon_sym_DOLLAR, tcl_anon_sym_DQUOTE,
      tcl_sym_escaped_character, tcl_sym__quoted_word_content, tcl_anon_sym_LBRACK]),
     (46, [tcl_sym_simple_word, tcl_anon_sym_DOLLAR, tcl_anon_sym_LBRACE, tcl_sym_number,
      tcl_sym__boolean, tcl_anon_sym_LPAREN2, tcl_anon_sym_DQUOTE, tcl_anon_sym_LBRACK]),
     (49, [tcl_anon_sym_DOLLAR, tcl_anon_sym_DQUOTE, tcl_sym_escaped_character,
      tcl_sym__quoted_word_content, tcl_anon_sym_LBRACK]),
     (50, [tcl_sym_simple_word, tcl_anon_sym_error, tcl_anon_sym_LPAREN, tcl_anon_sym_RPAREN,
      tcl_anon_sym_LBRACE, tcl_anon_sym_RBRACE, tcl_anon_sym_DQUOTE, tcl_anon_sym_RBRACK]),
     (52, [tcl_sym__ident, tcl_anon_sym_COLON_COLON2, tcl_anon_sym_DOLLAR]),
     (53, [tcl_sym_simple_word, tcl_anon_sym_COLON_COLON, tcl_anon_sym_LPAREN,
      tcl_anon_sym_LBRACE]),
     (55, [tcl_anon_sym_COLON_COLON, tcl_sym__ident_imm, tcl_anon_sym_LBRACE]),
     (59, [tcl_aux_sym_variable_substitution_token1]),
     (80, [ts_builtin_sym_end, tcl_sym_simple_word, tcl_anon_sym_LF, tcl_anon_sym_SEMI,
      tcl_sym_comment, tcl_anon_sym_regexp, tcl_anon_sym_while, tcl_anon_sym_expr,
      tcl_anon_sym_foreach, tcl_anon_sym_global, tcl_anon_sym_namespace, tcl_anon_sym_try,
      tcl_sym_unpack, tcl_anon_sym_DOLLAR, tcl_anon_sym_LBRACE, tcl_anon_sym_RBRACE,
      tcl_anon_sym_set, tcl_anon_sym_proc, tcl_anon_sym_elseif, tcl_anon_sym_else,
      tcl_anon_sym_if, tcl_anon_sym_catch, tcl_anon_sym_DQUOTE, tcl_sym_escaped_character,
      tcl_anon_sym_LBRACK])]"

section \<open>The lexers on the samples\<close>

lemma tcl_case_facts:
  "tcl_lex_cases ! 0 = tcl_lex_0"
  "tcl_lex_cases ! Suc 0 = tcl_lex_1"
  "tcl_lex_cases ! 2 = tcl_lex_2"
  "tcl_lex_cases ! 3 = tcl_lex_3"
  "tcl_lex_cases ! 4 = tcl_lex_4"
  "tcl_lex_cases ! 5 = tcl_lex_5"
  "tcl_lex_cases ! 6 = tcl_lex_6"
  "tcl_lex_cases ! 7 = tcl_lex_7"
  "tcl_lex_cases ! 8 = tcl_lex_8"
  "tcl_lex_cases ! 9 = tcl_lex_9"
  "tcl_lex_cases ! 10 = tcl_lex_10"
  "tcl_lex_cases ! 11 = tcl_lex_11"
  "tcl_lex_cases ! 12 = tcl_lex_12"
  "tcl_lex_cases ! 13 = tcl_lex_13"
  "tcl_lex_cases ! 14 = tcl_lex_14"
  "tcl_lex_cases ! 15 = tcl_lex_15"
  "tcl_lex_cases ! 16 = tcl_lex_16"
  "tcl_lex_cases ! 17 = tcl_lex_17"
  "tcl_lex_cases ! 18 = tcl_lex_18"
  "tcl_lex_cases ! 19 = tcl_lex_19"
  "tcl_lex_cases ! 20 = tcl_lex_20"
  "tcl_lex_cases ! 21 = tcl_lex_21"
  "tcl_lex_cases ! 22 = tcl_lex_22"
  "tcl_lex_cases ! 23 = tcl_lex_23"
  "tcl_lex_cases ! 24 = tcl_lex_24"
  "tcl_lex_cases ! 25 = tcl_lex_25"
  "tcl_lex_cases ! 26 = tcl_lex_26"
  "tcl_lex_cases ! 27 = tcl_lex_27"
  "tcl_lex_cases ! 28 = tcl_lex_28"
  "tcl_lex_cases ! 29 = tcl_lex_29"
  "tcl_lex_cases ! 30 = tcl_lex_30"
  "tcl_lex_cases ! 31 = tcl_lex_31"
  "tcl_lex_cases ! 32 = tcl_lex_32"
  "tcl_lex_cases ! 33 = tcl_lex_33"
  "tcl_lex_cases ! 34 = tcl_lex_34"
  "tcl_lex_cases ! 35 = tcl_lex_35"
  "tcl_lex_cases ! 36 = tcl_lex_36"
  "tcl_lex_cases ! 37 = tcl_lex_37"
  "tcl_lex_cases ! 38 = tcl_lex_38"
  "tcl_lex_cases ! 39 = tcl_lex_39"
  "tcl_lex_cases ! 40 = tcl_lex_40"
  "tcl_lex_cases ! 41 = tcl_lex_41"
  "tcl_lex_cases ! 42 = tcl_lex_42"
  "tcl_lex_cases ! 43 = tcl_lex_43"
  "tcl_lex_cases ! 44 = tcl_lex_44"
  "tcl_lex_cases ! 45 = tcl_lex_45"
  "tcl_lex_cases ! 46 = tcl_lex_46"
  "tcl_lex_cases ! 47 = tcl_lex_47"
  "tcl_lex_cases ! 48 = tcl_lex_48"
  "tcl_lex_cases ! 49 = tcl_lex_49"
  "tcl_lex_cases ! 50 = tcl_lex_50"
  "tcl_lex_cases ! 51 = tcl_lex_51"
  "tcl_lex_cases ! 52 = tcl_lex_52"
  "tcl_lex_cases ! 53 = tcl_lex_53"
  "tcl_lex_cases ! 54 = tcl_lex_54"
  "tcl_lex_cases ! 55 = tcl_lex_55"
  "tcl_lex_cases ! 56 = tcl_lex_56"
  "tcl_lex_cases ! 57 = tcl_lex_57"
  "tcl_lex_cases ! 58 = tcl_lex_58"
  "tcl_lex_cases ! 59 = tcl_lex_59"
  "tcl_lex_cases ! 60 = tcl_lex_60"
  "tcl_lex_cases ! 61 = tcl_lex_61"
  "tcl_lex_cases ! 62 = tcl_lex_62"
  "tcl_lex_cases ! 63 = tcl_lex_63"
  "tcl_lex_cases ! 64 = tcl_lex_64"
  "tcl_lex_cases ! 65 = tcl_lex_65"
  "tcl_lex_cases ! 66 = tcl_lex_66"
  "tcl_lex_cases ! 67 = tcl_lex_67"
  "tcl_lex_cases ! 68 = tcl_lex_68"
  "tcl_lex_cases ! 69 = tcl_lex_69"
  "tcl_lex_cases ! 70 = tcl_lex_70"
  "tcl_lex_cases ! 71 = tcl_lex_71"
  "tcl_lex_cases ! 72 = tcl_lex_72"
  "tcl_lex_cases ! 73 = tcl_lex_73"
  "tcl_lex_cases ! 74 = tcl_lex_74"
  "tcl_lex_cases ! 75 = tcl_lex_75"
  "tcl_lex_cases ! 76 = tcl_lex_76"
  "tcl_lex_cases ! 77 = tcl_lex_77"
  "tcl_lex_cases ! 78 = tcl_lex_78"
  "tcl_lex_cases ! 79 = tcl_lex_79"
  "tcl_lex_cases ! 80 = tcl_lex_80"
  "tcl_lex_cases ! 81 = tcl_lex_81"
  "tcl_lex_cases ! 82 = tcl_lex_82"
  "tcl_lex_cases ! 83 = tcl_lex_83"
  "tcl_lex_cases ! 84 = tcl_lex_84"
  "tcl_lex_cases ! 85 = tcl_lex_85"
  "tcl_lex_cases ! 86 = tcl_lex_86"
  "tcl_lex_cases ! 87 = tcl_lex_87"
  "tcl_lex_cases ! 88 = tcl_lex_88"
  "tcl_lex_cases ! 89 = tcl_lex_89"
  "tcl_lex_cases ! 90 = tcl_lex_90"
  "tcl_lex_cases ! 91 = tcl_lex_91"
  "tcl_lex_cases ! 92 = tcl_lex_92"
  "tcl_lex_cases ! 93 = tcl_lex_93"
  "tcl_lex_cases ! 94 = tcl_lex_94"
  "tcl_lex_cases ! 95 = tcl_lex_95"
  "tcl_lex_cases ! 96 = tcl_lex_96"
  "tcl_lex_cases ! 97 = tcl_lex_97"
  "tcl_lex_cases ! 98 = tcl_lex_98"
  "tcl_lex_cases ! 99 = tcl_lex_99"
  "tcl_lex_cases ! 100 = tcl_lex_100"
  "tcl_lex_cases ! 101 = tcl_lex_101"
  "tcl_lex_cases ! 102 = tcl_lex_102"
  "tcl_lex_cases ! 103 = tcl_lex_103"
  "tcl_lex_cases ! 104 = tcl_lex_104"
  "tcl_lex_cases ! 105 = tcl_lex_105"
  "tcl_lex_cases ! 106 = tcl_lex_106"
  "tcl_lex_cases ! 107 = tcl_lex_107"
  "tcl_lex_cases ! 108 = tcl_lex_108"
  "tcl_lex_cases ! 109 = tcl_lex_109"
  "tcl_lex_cases ! 110 = tcl_lex_110"
  "tcl_lex_cases ! 111 = tcl_lex_111"
  "tcl_lex_cases ! 112 = tcl_lex_112"
  "tcl_lex_cases ! 113 = tcl_lex_113"
  "tcl_lex_cases ! 114 = tcl_lex_114"
  "tcl_lex_cases ! 115 = tcl_lex_115"
  "tcl_lex_cases ! 116 = tcl_lex_116"
  "tcl_lex_cases ! 117 = tcl_lex_117"
  "tcl_lex_cases ! 118 = tcl_lex_118"
  "tcl_lex_cases ! 119 = tcl_lex_119"
  "tcl_lex_cases ! 120 = tcl_lex_120"
  "tcl_lex_cases ! 121 = tcl_lex_121"
  "tcl_lex_cases ! 122 = tcl_lex_122"
  "tcl_lex_cases ! 123 = tcl_lex_123"
  "tcl_lex_cases ! 124 = tcl_lex_124"
  "tcl_lex_cases ! 125 = tcl_lex_125"
  "tcl_lex_cases ! 126 = tcl_lex_126"
  "tcl_lex_cases ! 127 = tcl_lex_127"
  "tcl_lex_cases ! 128 = tcl_lex_128"
  "tcl_lex_cases ! 129 = tcl_lex_129"
  "tcl_lex_cases ! 130 = tcl_lex_130"
  "tcl_lex_cases ! 131 = tcl_lex_131"
  "tcl_lex_cases ! 132 = tcl_lex_132"
  "tcl_lex_cases ! 133 = tcl_lex_133"
  "tcl_lex_cases ! 134 = tcl_lex_134"
  "tcl_lex_cases ! 135 = tcl_lex_135"
  "tcl_lex_cases ! 136 = tcl_lex_136"
  "tcl_lex_cases ! 137 = tcl_lex_137"
  "tcl_lex_cases ! 138 = tcl_lex_138"
  "tcl_lex_cases ! 139 = tcl_lex_139"
  "tcl_lex_cases ! 140 = tcl_lex_140"
  "tcl_lex_cases ! 141 = tcl_lex_141"
  "tcl_lex_cases ! 142 = tcl_lex_142"
  "tcl_lex_cases ! 143 = tcl_lex_143"
  "tcl_lex_cases ! 144 = tcl_lex_144"
  "tcl_lex_cases ! 145 = tcl_lex_145"
  "tcl_lex_cases ! 146 = tcl_lex_146"
  "tcl_lex_cases ! 147 = tcl_lex_147"
  "tcl_lex_cases ! 148 = tcl_lex_148"
  "tcl_lex_cases ! 149 = tcl_lex_149"
  "tcl_lex_cases ! 150 = tcl_lex_150"
  "tcl_lex_cases ! 151 = tcl_lex_151"
  "tcl_lex_cases ! 152 = tcl_lex_152"
  "tcl_lex_cases ! 153 = tcl_lex_153"
  "tcl_lex_cases ! 154 = tcl_lex_154"
  "tcl_lex_cases ! 155 = tcl_lex_155"
  "tcl_lex_cases ! 156 = tcl_lex_156"
  "tcl_lex_cases ! 157 = tcl_lex_157"
  "tcl_lex_cases ! 158 = tcl_lex_158"
  "tcl_lex_cases ! 159 = tcl_lex_159"
  "tcl_lex_cases ! 160 = tcl_lex_160"
  "tcl_lex_cases ! 161 = tcl_lex_161"
  "tcl_lex_cases ! 162 = tcl_lex_162"
  "tcl_lex_cases ! 163 = tcl_lex_163"
  "tcl_lex_cases ! 164 = tcl_lex_164"
  "tcl_lex_cases ! 165 = tcl_lex_165"
  "tcl_lex_cases ! 166 = tcl_lex_166"
  "tcl_lex_cases ! 167 = tcl_lex_167"
  "tcl_lex_cases ! 168 = tcl_lex_168"
  "tcl_lex_cases ! 169 = tcl_lex_169"
  "tcl_lex_cases ! 170 = tcl_lex_170"
  "tcl_lex_cases ! 171 = tcl_lex_171"
  "tcl_lex_cases ! 172 = tcl_lex_172"
  "tcl_lex_cases ! 173 = tcl_lex_173"
  "tcl_lex_cases ! 174 = tcl_lex_174"
  "tcl_lex_cases ! 175 = tcl_lex_175"
  "tcl_lex_cases ! 176 = tcl_lex_176"
  "tcl_lex_cases ! 177 = tcl_lex_177"
  "tcl_lex_cases ! 178 = tcl_lex_178"
  "tcl_lex_cases ! 179 = tcl_lex_179"
  "tcl_lex_cases ! 180 = tcl_lex_180"
  "tcl_lex_cases ! 181 = tcl_lex_181"
  "tcl_lex_cases ! 182 = tcl_lex_182"
  "tcl_lex_cases ! 183 = tcl_lex_183"
  "tcl_lex_cases ! 184 = tcl_lex_184"
  "tcl_lex_cases ! 185 = tcl_lex_185"
  "tcl_lex_cases ! 186 = tcl_lex_186"
  "tcl_lex_cases ! 187 = tcl_lex_187"
  "tcl_lex_cases ! 188 = tcl_lex_188"
  "tcl_lex_cases ! 189 = tcl_lex_189"
  "tcl_lex_cases ! 190 = tcl_lex_190"
  "tcl_lex_cases ! 191 = tcl_lex_191"
  "tcl_lex_cases ! 192 = tcl_lex_192"
  "tcl_lex_cases ! 193 = tcl_lex_193"
  "tcl_lex_cases ! 194 = tcl_lex_194"
  "tcl_lex_cases ! 195 = tcl_lex_195"
  "tcl_lex_cases ! 196 = tcl_lex_196"
  "tcl_lex_cases ! 197 = tcl_lex_197"
  "tcl_lex_cases ! 198 = tcl_lex_198"
  "tcl_lex_cases ! 199 = tcl_lex_199"
  "tcl_lex_cases ! 200 = tcl_lex_200"
  "tcl_lex_cases ! 201 = tcl_lex_201"
  "tcl_lex_cases ! 202 = tcl_lex_202"
  "tcl_lex_cases ! 203 = tcl_lex_203"
  "tcl_lex_cases ! 204 = tcl_lex_204"
  "tcl_lex_cases ! 205 = tcl_lex_205"
  by (simp_all add: tcl_lex_cases_def)

lemmas tcl_munch_eval = better_def tcl_switch.switch_eval tcl_case_facts tcl_lex_defs tcl_in_simple_word_iff tcl_word_char_def

lemma tcl_sample_facts:
  "tcl_sample ts_builtin_sym_end = []"
  "tcl_sample (Suc 0) = [CH_a]"
  "tcl_sample tcl_anon_sym_LF = [CH_LF]"
  "tcl_sample tcl_anon_sym_SEMI = [CH_SEMICOLON]"
  "tcl_sample tcl_sym_comment = [CH_HASH]"
  "tcl_sample tcl_anon_sym_regexp = [CH_r, CH_e, CH_g, CH_e, CH_x, CH_p]"
  "tcl_sample tcl_anon_sym_while = [CH_w, CH_h, CH_i, CH_l, CH_e]"
  "tcl_sample tcl_anon_sym_expr = [CH_e, CH_x, CH_p, CH_r]"
  "tcl_sample tcl_anon_sym_foreach = [CH_f, CH_o, CH_r, CH_e, CH_a, CH_c, CH_h]"
  "tcl_sample tcl_anon_sym_global = [CH_g, CH_l, CH_o, CH_b, CH_a, CH_l]"
  "tcl_sample tcl_anon_sym_namespace = [CH_n, CH_a, CH_m, CH_e, CH_s, CH_p, CH_a, CH_c, CH_e]"
  "tcl_sample tcl_anon_sym_try = [CH_t, CH_r, CH_y]"
  "tcl_sample tcl_anon_sym_on = [CH_o, CH_n]"
  "tcl_sample tcl_anon_sym_error = [CH_e, CH_r, CH_r, CH_o, CH_r]"
  "tcl_sample tcl_anon_sym_finally = [CH_f, CH_i, CH_n, CH_a, CH_l, CH_l, CH_y]"
  "tcl_sample tcl_sym_unpack = [CH_LBRACE, CH_STAR, CH_RBRACE]"
  "tcl_sample tcl_anon_sym_COLON_COLON = [CH_COLON, CH_COLON]"
  "tcl_sample tcl_sym__ident_imm = [CH_a]"
  "tcl_sample tcl_sym__ident = [CH_a]"
  "tcl_sample tcl_anon_sym_COLON_COLON2 = [CH_COLON, CH_COLON]"
  "tcl_sample tcl_anon_sym_LPAREN = [CH_LPAREN]"
  "tcl_sample tcl_anon_sym_RPAREN = [CH_RPAREN]"
  "tcl_sample tcl_anon_sym_DOLLAR = [CH_DOLLAR]"
  "tcl_sample tcl_anon_sym_LBRACE = [CH_LBRACE]"
  "tcl_sample tcl_aux_sym_variable_substitution_token1 = [CH_a]"
  "tcl_sample tcl_anon_sym_RBRACE = [CH_RBRACE]"
  "tcl_sample tcl_anon_sym_set = [CH_s, CH_e, CH_t]"
  "tcl_sample tcl_anon_sym_proc = [CH_p, CH_r, CH_o, CH_c]"
  "tcl_sample tcl_sym_number = [50]"
  "tcl_sample tcl_sym__boolean = [CH_t, CH_r, CH_u, CH_e]"
  "tcl_sample tcl_anon_sym_LPAREN2 = [CH_LPAREN]"
  "tcl_sample tcl_anon_sym_DASH = [CH_MINUS]"
  "tcl_sample tcl_anon_sym_PLUS = [CH_PLUS]"
  "tcl_sample tcl_anon_sym_TILDE = [126]"
  "tcl_sample tcl_anon_sym_BANG = [CH_BANG]"
  "tcl_sample tcl_anon_sym_STAR_STAR = [CH_STAR, CH_STAR]"
  "tcl_sample tcl_anon_sym_SLASH = [CH_SLASH]"
  "tcl_sample tcl_anon_sym_STAR = [CH_STAR]"
  "tcl_sample tcl_anon_sym_PERCENT = [CH_PERCENT]"
  "tcl_sample tcl_anon_sym_LT_LT = [CH_LT, CH_LT]"
  "tcl_sample tcl_anon_sym_GT_GT = [CH_GT, CH_GT]"
  "tcl_sample tcl_anon_sym_GT = [CH_GT]"
  "tcl_sample tcl_anon_sym_LT = [CH_LT]"
  "tcl_sample tcl_anon_sym_GT_EQ = [CH_GT, CH_EQUALS]"
  "tcl_sample tcl_anon_sym_LT_EQ = [CH_LT, CH_EQUALS]"
  "tcl_sample tcl_anon_sym_EQ_EQ = [CH_EQUALS, CH_EQUALS]"
  "tcl_sample tcl_anon_sym_BANG_EQ = [CH_BANG, CH_EQUALS]"
  "tcl_sample tcl_anon_sym_eq = [CH_e, CH_q]"
  "tcl_sample tcl_anon_sym_ne = [CH_n, CH_e]"
  "tcl_sample tcl_anon_sym_in = [CH_i, CH_n]"
  "tcl_sample tcl_anon_sym_ni = [CH_n, CH_i]"
  "tcl_sample tcl_anon_sym_AMP = [CH_AMP]"
  "tcl_sample tcl_anon_sym_CARET = [CH_CARET]"
  "tcl_sample tcl_anon_sym_PIPE = [CH_BAR]"
  "tcl_sample tcl_anon_sym_AMP_AMP = [CH_AMP, CH_AMP]"
  "tcl_sample tcl_anon_sym_PIPE_PIPE = [CH_BAR, CH_BAR]"
  "tcl_sample tcl_anon_sym_QMARK = [CH_QMARK]"
  "tcl_sample tcl_anon_sym_COLON = [CH_COLON]"
  "tcl_sample tcl_anon_sym_elseif = [CH_e, CH_l, CH_s, CH_e, CH_i, CH_f]"
  "tcl_sample tcl_anon_sym_else = [CH_e, CH_l, CH_s, CH_e]"
  "tcl_sample tcl_anon_sym_if = [CH_i, CH_f]"
  "tcl_sample tcl_anon_sym_catch = [CH_c, CH_a, CH_t, CH_c, CH_h]"
  "tcl_sample tcl_anon_sym_DQUOTE = [CH_DQUOTE]"
  "tcl_sample tcl_sym_escaped_character = [CH_BACKSLASH, CH_a]"
  "tcl_sample tcl_sym__quoted_word_content = [CH_SPACE]"
  "tcl_sample tcl_anon_sym_LBRACK = [CH_LBRACKET]"
  "tcl_sample tcl_anon_sym_RBRACK = [CH_RBRACKET]"
  by (simp_all add: tcl_sample_def)

lemma tcl_captured_facts:
  "tcl_captured ts_builtin_sym_end = ts_builtin_sym_end"
  "tcl_captured (Suc 0) = tcl_sym_simple_word"
  "tcl_captured tcl_anon_sym_LF = tcl_anon_sym_LF"
  "tcl_captured tcl_anon_sym_SEMI = tcl_anon_sym_SEMI"
  "tcl_captured tcl_sym_comment = tcl_sym_comment"
  "tcl_captured tcl_anon_sym_regexp = tcl_sym_simple_word"
  "tcl_captured tcl_anon_sym_while = tcl_sym_simple_word"
  "tcl_captured tcl_anon_sym_expr = tcl_sym_simple_word"
  "tcl_captured tcl_anon_sym_foreach = tcl_sym_simple_word"
  "tcl_captured tcl_anon_sym_global = tcl_sym_simple_word"
  "tcl_captured tcl_anon_sym_namespace = tcl_sym_simple_word"
  "tcl_captured tcl_anon_sym_try = tcl_sym_simple_word"
  "tcl_captured tcl_anon_sym_on = tcl_anon_sym_on"
  "tcl_captured tcl_anon_sym_error = tcl_sym_simple_word"
  "tcl_captured tcl_anon_sym_finally = tcl_anon_sym_finally"
  "tcl_captured tcl_sym_unpack = tcl_sym_unpack"
  "tcl_captured tcl_anon_sym_COLON_COLON = tcl_anon_sym_COLON_COLON"
  "tcl_captured tcl_sym__ident_imm = tcl_sym__ident_imm"
  "tcl_captured tcl_sym__ident = tcl_sym__ident"
  "tcl_captured tcl_anon_sym_COLON_COLON2 = tcl_anon_sym_COLON_COLON2"
  "tcl_captured tcl_anon_sym_LPAREN = tcl_anon_sym_LPAREN"
  "tcl_captured tcl_anon_sym_RPAREN = tcl_anon_sym_RPAREN"
  "tcl_captured tcl_anon_sym_DOLLAR = tcl_anon_sym_DOLLAR"
  "tcl_captured tcl_anon_sym_LBRACE = tcl_anon_sym_LBRACE"
  "tcl_captured tcl_aux_sym_variable_substitution_token1 = tcl_aux_sym_variable_substitution_token1"
  "tcl_captured tcl_anon_sym_RBRACE = tcl_anon_sym_RBRACE"
  "tcl_captured tcl_anon_sym_set = tcl_sym_simple_word"
  "tcl_captured tcl_anon_sym_proc = tcl_sym_simple_word"
  "tcl_captured tcl_sym_number = tcl_sym_number"
  "tcl_captured tcl_sym__boolean = tcl_sym__boolean"
  "tcl_captured tcl_anon_sym_LPAREN2 = tcl_anon_sym_LPAREN2"
  "tcl_captured tcl_anon_sym_DASH = tcl_anon_sym_DASH"
  "tcl_captured tcl_anon_sym_PLUS = tcl_anon_sym_PLUS"
  "tcl_captured tcl_anon_sym_TILDE = tcl_anon_sym_TILDE"
  "tcl_captured tcl_anon_sym_BANG = tcl_anon_sym_BANG"
  "tcl_captured tcl_anon_sym_STAR_STAR = tcl_anon_sym_STAR_STAR"
  "tcl_captured tcl_anon_sym_SLASH = tcl_anon_sym_SLASH"
  "tcl_captured tcl_anon_sym_STAR = tcl_anon_sym_STAR"
  "tcl_captured tcl_anon_sym_PERCENT = tcl_anon_sym_PERCENT"
  "tcl_captured tcl_anon_sym_LT_LT = tcl_anon_sym_LT_LT"
  "tcl_captured tcl_anon_sym_GT_GT = tcl_anon_sym_GT_GT"
  "tcl_captured tcl_anon_sym_GT = tcl_anon_sym_GT"
  "tcl_captured tcl_anon_sym_LT = tcl_anon_sym_LT"
  "tcl_captured tcl_anon_sym_GT_EQ = tcl_anon_sym_GT_EQ"
  "tcl_captured tcl_anon_sym_LT_EQ = tcl_anon_sym_LT_EQ"
  "tcl_captured tcl_anon_sym_EQ_EQ = tcl_anon_sym_EQ_EQ"
  "tcl_captured tcl_anon_sym_BANG_EQ = tcl_anon_sym_BANG_EQ"
  "tcl_captured tcl_anon_sym_eq = tcl_anon_sym_eq"
  "tcl_captured tcl_anon_sym_ne = tcl_anon_sym_ne"
  "tcl_captured tcl_anon_sym_in = tcl_anon_sym_in"
  "tcl_captured tcl_anon_sym_ni = tcl_anon_sym_ni"
  "tcl_captured tcl_anon_sym_AMP = tcl_anon_sym_AMP"
  "tcl_captured tcl_anon_sym_CARET = tcl_anon_sym_CARET"
  "tcl_captured tcl_anon_sym_PIPE = tcl_anon_sym_PIPE"
  "tcl_captured tcl_anon_sym_AMP_AMP = tcl_anon_sym_AMP_AMP"
  "tcl_captured tcl_anon_sym_PIPE_PIPE = tcl_anon_sym_PIPE_PIPE"
  "tcl_captured tcl_anon_sym_QMARK = tcl_anon_sym_QMARK"
  "tcl_captured tcl_anon_sym_COLON = tcl_anon_sym_COLON"
  "tcl_captured tcl_anon_sym_elseif = tcl_anon_sym_elseif"
  "tcl_captured tcl_anon_sym_else = tcl_anon_sym_else"
  "tcl_captured tcl_anon_sym_if = tcl_sym_simple_word"
  "tcl_captured tcl_anon_sym_catch = tcl_sym_simple_word"
  "tcl_captured tcl_anon_sym_DQUOTE = tcl_anon_sym_DQUOTE"
  "tcl_captured tcl_sym_escaped_character = tcl_sym_escaped_character"
  "tcl_captured tcl_sym__quoted_word_content = tcl_sym__quoted_word_content"
  "tcl_captured tcl_anon_sym_LBRACK = tcl_anon_sym_LBRACK"
  "tcl_captured tcl_anon_sym_RBRACK = tcl_anon_sym_RBRACK"
  by (simp_all add: tcl_captured_def tcl_keyword_tokens_def)

lemma tcl_samples:
  "list_all (\<lambda>(m, ys). list_all (\<lambda>y. munch tcl_ts_lex m None (tcl_sample y) = Some (tcl_captured y, [])) ys)
     tcl_mode_tokens"
  by (simp add: tcl_mode_tokens_def tcl_sample_facts tcl_captured_facts tcl_munch_eval)

lemma tcl_keyword_samples:
  "list_all (\<lambda>y. munch tcl_ts_lex_keywords 0 None (tcl_sample y) = Some (y, [])) tcl_keyword_tokens"
  by (simp add: tcl_keyword_tokens_def tcl_sample_facts better_def tcl_keyword.switch_eval tcl_kw_cases_def tcl_kw_defs)

section \<open>Every entry is served\<close>

definition tcl_mode_pairs :: "(TSStateId \<times> TSSymbol) list" where
  "tcl_mode_pairs = concat (map (\<lambda>(m, ys). map (Pair m) ys) tcl_mode_tokens)"

abbreviation tcl_mode :: "TSStateId \<Rightarrow> TSLexerMode" where
  "tcl_mode \<equiv> array_of \<lparr>lex_state = 0, external_lex_state = 0, reserved_word_set_id = 0\<rparr> tcl_ts_lex_modes"

definition tcl_served :: "TSStateId \<Rightarrow> TSSymbol \<Rightarrow> nat \<Rightarrow> bool" where
  "tcl_served s x v \<longleftrightarrow> s = 0 \<or> tcl_TOKEN_COUNT \<le> x \<or>
     (if x = tcl_sym__concat \<or> x = tcl_sym__immediate then x = tcl_sym__concat \<and> external_lex_state (tcl_mode s) = 2
      else (lex_state (tcl_mode s), x) \<in> set tcl_mode_pairs)"

lemma tcl_modes_numbered:
  "numbered 0 tcl_lex_modes_0 100"
  "numbered 100 tcl_lex_modes_1 200"
  "numbered 200 tcl_lex_modes_2 300"
  "numbered 300 tcl_lex_modes_3 400"
  "numbered 400 tcl_lex_modes_4 500"
  "numbered 500 tcl_lex_modes_5 600"
  "numbered 600 tcl_lex_modes_6 700"
  "numbered 700 tcl_lex_modes_7 717"
  by (simp_all add: tcl_lex_modes_0_def tcl_lex_modes_1_def tcl_lex_modes_2_def tcl_lex_modes_3_def tcl_lex_modes_4_def tcl_lex_modes_5_def tcl_lex_modes_6_def tcl_lex_modes_7_def numbered_def upt_rec)

lemma tcl_modes_states: "numbered 0 tcl_ts_lex_modes tcl_STATE_COUNT"
  unfolding tcl_ts_lex_modes_def by ((rule numbered_append tcl_modes_numbered)+)

lemmas tcl_mode_piece = array_of_piece [OF numbered_distinct [OF tcl_modes_states]]

lemma tcl_mode_pieces:
  "set tcl_lex_modes_0 \<subseteq> set tcl_ts_lex_modes"
  "set tcl_lex_modes_1 \<subseteq> set tcl_ts_lex_modes"
  "set tcl_lex_modes_2 \<subseteq> set tcl_ts_lex_modes"
  "set tcl_lex_modes_3 \<subseteq> set tcl_ts_lex_modes"
  "set tcl_lex_modes_4 \<subseteq> set tcl_ts_lex_modes"
  "set tcl_lex_modes_5 \<subseteq> set tcl_ts_lex_modes"
  "set tcl_lex_modes_6 \<subseteq> set tcl_ts_lex_modes"
  "set tcl_lex_modes_7 \<subseteq> set tcl_ts_lex_modes"
  by (auto simp: tcl_ts_lex_modes_def)

lemmas tcl_mode_facts =
  tcl_mode_piece [OF tcl_mode_pieces(1), of "\<lparr>lex_state = 0, external_lex_state = 0, reserved_word_set_id = 0\<rparr>",
    simplified tcl_lex_modes_0_def list.pred_inject prod.case One_nat_def simp_thms]
  tcl_mode_piece [OF tcl_mode_pieces(2), of "\<lparr>lex_state = 0, external_lex_state = 0, reserved_word_set_id = 0\<rparr>",
    simplified tcl_lex_modes_1_def list.pred_inject prod.case One_nat_def simp_thms]
  tcl_mode_piece [OF tcl_mode_pieces(3), of "\<lparr>lex_state = 0, external_lex_state = 0, reserved_word_set_id = 0\<rparr>",
    simplified tcl_lex_modes_2_def list.pred_inject prod.case One_nat_def simp_thms]
  tcl_mode_piece [OF tcl_mode_pieces(4), of "\<lparr>lex_state = 0, external_lex_state = 0, reserved_word_set_id = 0\<rparr>",
    simplified tcl_lex_modes_3_def list.pred_inject prod.case One_nat_def simp_thms]
  tcl_mode_piece [OF tcl_mode_pieces(5), of "\<lparr>lex_state = 0, external_lex_state = 0, reserved_word_set_id = 0\<rparr>",
    simplified tcl_lex_modes_4_def list.pred_inject prod.case One_nat_def simp_thms]
  tcl_mode_piece [OF tcl_mode_pieces(6), of "\<lparr>lex_state = 0, external_lex_state = 0, reserved_word_set_id = 0\<rparr>",
    simplified tcl_lex_modes_5_def list.pred_inject prod.case One_nat_def simp_thms]
  tcl_mode_piece [OF tcl_mode_pieces(7), of "\<lparr>lex_state = 0, external_lex_state = 0, reserved_word_set_id = 0\<rparr>",
    simplified tcl_lex_modes_6_def list.pred_inject prod.case One_nat_def simp_thms]
  tcl_mode_piece [OF tcl_mode_pieces(8), of "\<lparr>lex_state = 0, external_lex_state = 0, reserved_word_set_id = 0\<rparr>",
    simplified tcl_lex_modes_7_def list.pred_inject prod.case One_nat_def simp_thms]

lemma tcl_pair_members:
  "list_all (\<lambda>x. (0, x) \<in> set tcl_mode_pairs) [ts_builtin_sym_end, tcl_anon_sym_RPAREN, tcl_anon_sym_RBRACE, tcl_anon_sym_RBRACK]"
  "list_all (\<lambda>x. (12, x) \<in> set tcl_mode_pairs) [tcl_anon_sym_LF, tcl_anon_sym_SEMI, tcl_anon_sym_on, tcl_anon_sym_finally, tcl_anon_sym_COLON_COLON, tcl_anon_sym_LPAREN, tcl_anon_sym_RBRACE, tcl_anon_sym_elseif, tcl_anon_sym_else]"
  "list_all (\<lambda>x. (28, x) \<in> set tcl_mode_pairs) [tcl_sym_simple_word, tcl_anon_sym_LF, tcl_anon_sym_SEMI, tcl_sym_unpack, tcl_anon_sym_COLON_COLON, tcl_anon_sym_LPAREN, tcl_anon_sym_DOLLAR, tcl_anon_sym_LBRACE, tcl_anon_sym_RBRACE, tcl_anon_sym_DQUOTE, tcl_sym_escaped_character, tcl_anon_sym_LBRACK]"
  "list_all (\<lambda>x. (29, x) \<in> set tcl_mode_pairs) [tcl_sym_simple_word, tcl_anon_sym_LF, tcl_anon_sym_SEMI, tcl_sym_unpack, tcl_anon_sym_LPAREN, tcl_anon_sym_DOLLAR, tcl_anon_sym_LBRACE, tcl_anon_sym_RBRACE, tcl_anon_sym_DQUOTE, tcl_sym_escaped_character, tcl_anon_sym_LBRACK]"
  "list_all (\<lambda>x. (31, x) \<in> set tcl_mode_pairs) [tcl_sym_simple_word, tcl_anon_sym_LF, tcl_anon_sym_SEMI, tcl_anon_sym_COLON_COLON, tcl_anon_sym_LPAREN, tcl_anon_sym_DOLLAR, tcl_anon_sym_LBRACE, tcl_anon_sym_RBRACE, tcl_anon_sym_DQUOTE, tcl_sym_escaped_character, tcl_anon_sym_LBRACK]"
  "list_all (\<lambda>x. (32, x) \<in> set tcl_mode_pairs) [tcl_sym_simple_word, tcl_anon_sym_LF, tcl_anon_sym_SEMI, tcl_anon_sym_LPAREN, tcl_anon_sym_DOLLAR, tcl_anon_sym_LBRACE, tcl_anon_sym_RBRACE, tcl_anon_sym_DQUOTE, tcl_sym_escaped_character, tcl_anon_sym_LBRACK]"
  "list_all (\<lambda>x. (34, x) \<in> set tcl_mode_pairs) [tcl_sym_simple_word, tcl_anon_sym_DOLLAR, tcl_anon_sym_LBRACE, tcl_sym_number, tcl_sym__boolean, tcl_anon_sym_LPAREN2, tcl_anon_sym_DASH, tcl_anon_sym_PLUS, tcl_anon_sym_TILDE, tcl_anon_sym_BANG, tcl_anon_sym_DQUOTE, tcl_sym_escaped_character, tcl_anon_sym_LBRACK]"
  "list_all (\<lambda>x. (35, x) \<in> set tcl_mode_pairs) [tcl_anon_sym_on, tcl_anon_sym_finally, tcl_anon_sym_COLON_COLON, tcl_anon_sym_LPAREN, tcl_anon_sym_RPAREN, tcl_anon_sym_LBRACE, tcl_anon_sym_RBRACE, tcl_anon_sym_DASH, tcl_anon_sym_PLUS, tcl_anon_sym_STAR_STAR, tcl_anon_sym_SLASH, tcl_anon_sym_STAR, tcl_anon_sym_PERCENT, tcl_anon_sym_LT_LT, tcl_anon_sym_GT_GT, tcl_anon_sym_GT, tcl_anon_sym_LT, tcl_anon_sym_GT_EQ, tcl_anon_sym_LT_EQ, tcl_anon_sym_EQ_EQ, tcl_anon_sym_BANG_EQ, tcl_anon_sym_eq, tcl_anon_sym_ne, tcl_anon_sym_in, tcl_anon_sym_ni, tcl_anon_sym_AMP, tcl_anon_sym_CARET, tcl_anon_sym_PIPE, tcl_anon_sym_AMP_AMP, tcl_anon_sym_PIPE_PIPE, tcl_anon_sym_QMARK, tcl_anon_sym_COLON, tcl_anon_sym_elseif, tcl_anon_sym_else, tcl_anon_sym_RBRACK]"
  "list_all (\<lambda>x. (36, x) \<in> set tcl_mode_pairs) [tcl_anon_sym_LPAREN, tcl_anon_sym_RPAREN, tcl_anon_sym_RBRACE, tcl_anon_sym_DASH, tcl_anon_sym_PLUS, tcl_anon_sym_STAR_STAR, tcl_anon_sym_SLASH, tcl_anon_sym_STAR, tcl_anon_sym_PERCENT, tcl_anon_sym_LT_LT, tcl_anon_sym_GT_GT, tcl_anon_sym_GT, tcl_anon_sym_LT, tcl_anon_sym_GT_EQ, tcl_anon_sym_LT_EQ, tcl_anon_sym_EQ_EQ, tcl_anon_sym_BANG_EQ, tcl_anon_sym_eq, tcl_anon_sym_ne, tcl_anon_sym_in, tcl_anon_sym_ni, tcl_anon_sym_AMP, tcl_anon_sym_CARET, tcl_anon_sym_PIPE, tcl_anon_sym_AMP_AMP, tcl_anon_sym_PIPE_PIPE, tcl_anon_sym_QMARK, tcl_anon_sym_COLON, tcl_anon_sym_RBRACK]"
  "list_all (\<lambda>x. (39, x) \<in> set tcl_mode_pairs) [tcl_sym_simple_word, tcl_sym_comment, tcl_anon_sym_regexp, tcl_anon_sym_while, tcl_anon_sym_expr, tcl_anon_sym_foreach, tcl_anon_sym_global, tcl_anon_sym_namespace, tcl_anon_sym_try, tcl_sym_unpack, tcl_anon_sym_DOLLAR, tcl_anon_sym_LBRACE, tcl_anon_sym_RBRACE, tcl_anon_sym_set, tcl_anon_sym_proc, tcl_anon_sym_elseif, tcl_anon_sym_else, tcl_anon_sym_if, tcl_anon_sym_catch, tcl_anon_sym_DQUOTE, tcl_sym_escaped_character, tcl_anon_sym_LBRACK]"
  "list_all (\<lambda>x. (40, x) \<in> set tcl_mode_pairs) [tcl_sym_simple_word, tcl_sym_unpack, tcl_anon_sym_COLON_COLON, tcl_anon_sym_LPAREN, tcl_anon_sym_DOLLAR, tcl_anon_sym_LBRACE, tcl_anon_sym_DQUOTE, tcl_sym_escaped_character, tcl_anon_sym_LBRACK, tcl_anon_sym_RBRACK]"
  "list_all (\<lambda>x. (41, x) \<in> set tcl_mode_pairs) [tcl_sym_simple_word, tcl_anon_sym_COLON_COLON, tcl_anon_sym_LPAREN, tcl_anon_sym_DOLLAR, tcl_anon_sym_LBRACE, tcl_anon_sym_RBRACE, tcl_anon_sym_DQUOTE, tcl_sym_escaped_character, tcl_anon_sym_LBRACK, tcl_anon_sym_RBRACK]"
  "list_all (\<lambda>x. (42, x) \<in> set tcl_mode_pairs) [tcl_anon_sym_COLON_COLON, tcl_anon_sym_LPAREN, tcl_anon_sym_DOLLAR, tcl_anon_sym_DQUOTE, tcl_sym_escaped_character, tcl_sym__quoted_word_content, tcl_anon_sym_LBRACK]"
  "list_all (\<lambda>x. (43, x) \<in> set tcl_mode_pairs) [tcl_sym_simple_word, tcl_sym_unpack, tcl_anon_sym_LPAREN, tcl_anon_sym_DOLLAR, tcl_anon_sym_LBRACE, tcl_anon_sym_DQUOTE, tcl_sym_escaped_character, tcl_anon_sym_LBRACK, tcl_anon_sym_RBRACK]"
  "list_all (\<lambda>x. (44, x) \<in> set tcl_mode_pairs) [tcl_sym_simple_word, tcl_anon_sym_LPAREN, tcl_anon_sym_DOLLAR, tcl_anon_sym_LBRACE, tcl_anon_sym_RBRACE, tcl_anon_sym_DQUOTE, tcl_sym_escaped_character, tcl_anon_sym_LBRACK, tcl_anon_sym_RBRACK]"
  "list_all (\<lambda>x. (45, x) \<in> set tcl_mode_pairs) [tcl_anon_sym_LPAREN, tcl_anon_sym_DOLLAR, tcl_anon_sym_DQUOTE, tcl_sym_escaped_character, tcl_sym__quoted_word_content, tcl_anon_sym_LBRACK]"
  "list_all (\<lambda>x. (46, x) \<in> set tcl_mode_pairs) [tcl_sym_simple_word, tcl_anon_sym_DOLLAR, tcl_anon_sym_LBRACE, tcl_sym_number, tcl_sym__boolean, tcl_anon_sym_LPAREN2, tcl_anon_sym_DQUOTE, tcl_anon_sym_LBRACK]"
  "list_all (\<lambda>x. (49, x) \<in> set tcl_mode_pairs) [tcl_anon_sym_DOLLAR, tcl_anon_sym_DQUOTE, tcl_sym_escaped_character, tcl_sym__quoted_word_content, tcl_anon_sym_LBRACK]"
  "list_all (\<lambda>x. (50, x) \<in> set tcl_mode_pairs) [tcl_sym_simple_word, tcl_anon_sym_error, tcl_anon_sym_LPAREN, tcl_anon_sym_RPAREN, tcl_anon_sym_LBRACE, tcl_anon_sym_RBRACE, tcl_anon_sym_DQUOTE, tcl_anon_sym_RBRACK]"
  "list_all (\<lambda>x. (52, x) \<in> set tcl_mode_pairs) [tcl_sym__ident, tcl_anon_sym_COLON_COLON2, tcl_anon_sym_DOLLAR]"
  "list_all (\<lambda>x. (53, x) \<in> set tcl_mode_pairs) [tcl_sym_simple_word, tcl_anon_sym_COLON_COLON, tcl_anon_sym_LPAREN, tcl_anon_sym_LBRACE]"
  "list_all (\<lambda>x. (55, x) \<in> set tcl_mode_pairs) [tcl_anon_sym_COLON_COLON, tcl_sym__ident_imm, tcl_anon_sym_LBRACE]"
  "list_all (\<lambda>x. (59, x) \<in> set tcl_mode_pairs) [tcl_aux_sym_variable_substitution_token1]"
  "list_all (\<lambda>x. (80, x) \<in> set tcl_mode_pairs) [ts_builtin_sym_end, tcl_sym_simple_word, tcl_anon_sym_LF, tcl_anon_sym_SEMI, tcl_sym_comment, tcl_anon_sym_regexp, tcl_anon_sym_while, tcl_anon_sym_expr, tcl_anon_sym_foreach, tcl_anon_sym_global, tcl_anon_sym_namespace, tcl_anon_sym_try, tcl_sym_unpack, tcl_anon_sym_DOLLAR, tcl_anon_sym_LBRACE, tcl_anon_sym_RBRACE, tcl_anon_sym_set, tcl_anon_sym_proc, tcl_anon_sym_elseif, tcl_anon_sym_else, tcl_anon_sym_if, tcl_anon_sym_catch, tcl_anon_sym_DQUOTE, tcl_sym_escaped_character, tcl_anon_sym_LBRACK]"
  by (simp_all add: tcl_mode_pairs_def tcl_mode_tokens_def)

lemmas tcl_served_facts = tcl_pair_members [simplified list.pred_inject One_nat_def simp_thms]

lemma tcl_served_large: "check_large tcl_served tcl_ts_parse_table"
  by (simp add: check_large_def tcl_served_def tcl_served_facts tcl_mode_facts tcl_table_defs)

lemma tcl_served_pieces:
  "check_runs tcl_served 2 tcl_small_table_0"
  "check_runs tcl_served 62 tcl_small_table_1"
  "check_runs tcl_served 122 tcl_small_table_2"
  "check_runs tcl_served 182 tcl_small_table_3"
  "check_runs tcl_served 242 tcl_small_table_4"
  "check_runs tcl_served 302 tcl_small_table_5"
  "check_runs tcl_served 362 tcl_small_table_6"
  "check_runs tcl_served 422 tcl_small_table_7"
  "check_runs tcl_served 482 tcl_small_table_8"
  "check_runs tcl_served 542 tcl_small_table_9"
  "check_runs tcl_served 602 tcl_small_table_10"
  "check_runs tcl_served 662 tcl_small_table_11"
  by (simp_all add: tcl_small_table_defs tcl_run_defs tcl_served_def tcl_served_facts tcl_mode_facts)

lemma tcl_served_small:
  "check_small tcl_served tcl_LARGE_STATE_COUNT tcl_ts_small_parse_table_map tcl_ts_small_parse_table"
  by (rule check_small_runs [OF tcl_map_states tcl_map_runs tcl_runs_contiguous])
    (simp add: tcl_ts_small_parse_table_def check_runs_append tcl_table_lengths tcl_served_pieces)

section \<open>The property\<close>

lemma tcl_language_facts:
  "lex_state (lex_modes tree_sitter_tcl s) = lex_state (tcl_mode s)"
  "external_lex_state (lex_modes tree_sitter_tcl s) = external_lex_state (tcl_mode s)"
  "language_lex tree_sitter_tcl = tcl_ts_lex" "keyword_lex_fn tree_sitter_tcl = Some tcl_ts_lex_keywords"
  "keyword_capture_token tree_sitter_tcl = tcl_sym_simple_word"
  by (simp_all add: tree_sitter_tcl_def TSLexMode.truncate_def)

lemma tcl_external_concat:
  "external_states tree_sitter_tcl (2 * tcl_EXTERNAL_TOKEN_COUNT + tcl_ts_external_token__concat)"
  "external_symbol_map tree_sitter_tcl tcl_ts_external_token__concat = tcl_sym__concat"
  by (simp_all add: tree_sitter_tcl_def flat_table_def tcl_ts_external_scanner_states_def
      tcl_ts_external_scanner_symbol_map_def)

lemma munch_longest: "munch sw s None xs = Some (y, rest) \<Longrightarrow> longest_token sw s xs y rest"
  by (simp add: munch_spec)

lemma tcl_pair_found:
  assumes "(m, x) \<in> set tcl_mode_pairs"
  shows "longest_token tcl_ts_lex m (tcl_sample x) (tcl_captured x) []"
  by (rule munch_longest) (use assms tcl_samples in \<open>auto simp: tcl_mode_pairs_def list_all_iff\<close>)

lemma tcl_keyword_found:
  "x \<in> set tcl_keyword_tokens \<Longrightarrow> longest_token tcl_ts_lex_keywords 0 (tcl_sample x) x []"
  by (rule munch_longest) (use tcl_keyword_samples in \<open>simp add: list_all_iff\<close>)

text \<open>
  Property C11. The lexers serve the Tcl parser: for every entry the tables have for a token in
  a state other than the error state, the lex mode of that state can return the token (there is a text
  whose longest token it is), or finds a word that the keyword lexer knows as the token; a concatenation mark is
  a token the external scanner is asked for in that state.
\<close>

theorem tcl_lexer_serves_parser:
  assumes "0 < s" and "s < state_count tree_sitter_tcl" and "x < token_count tree_sitter_tcl"
    and "table_value tree_sitter_tcl s x \<noteq> 0"
  shows "if x = tcl_sym__concat
    then \<exists>i. external_symbol_map tree_sitter_tcl i = x \<and>
      external_states tree_sitter_tcl
        (external_lex_state (lex_modes tree_sitter_tcl s) * external_token_count tree_sitter_tcl + i)
    else \<exists>text. longest_token (language_lex tree_sitter_tcl) (lex_state (lex_modes tree_sitter_tcl s)) text x [] \<or>
      longest_token (language_lex tree_sitter_tcl) (lex_state (lex_modes tree_sitter_tcl s)) text
        (keyword_capture_token tree_sitter_tcl) [] \<and>
      (\<exists>kw. keyword_lex_fn tree_sitter_tcl = Some kw \<and> longest_token kw 0 text x [])"
proof -
  have "tcl_served s x (table_value tree_sitter_tcl s x)"
    using tcl_init.every_entry [OF tcl_served_large _ assms(2) _ assms(4)] tcl_served_small assms(3)
    by (simp add: tcl_sizes)
  then have served: "if x = tcl_sym__concat then external_lex_state (tcl_mode s) = 2
      else (lex_state (tcl_mode s), x) \<in> set tcl_mode_pairs"
    using assms(1,3) by (auto simp: tcl_served_def tcl_sizes split: if_splits)
  show ?thesis
  proof (cases "x = tcl_sym__concat")
    case True
    with served have "external_lex_state (lex_modes tree_sitter_tcl s) * external_token_count tree_sitter_tcl = 4"
      by (simp add: tcl_language_facts tcl_sizes)
    with True show ?thesis
      using tcl_external_concat by (auto intro!: exI [of _ "tcl_ts_external_token__concat"])
  next
    case False
    with served have found: "longest_token tcl_ts_lex (lex_state (tcl_mode s)) (tcl_sample x) (tcl_captured x) []"
      by (auto intro: tcl_pair_found)
    show ?thesis
    proof (cases "x \<in> set tcl_keyword_tokens")
      case True
      with found False tcl_keyword_found show ?thesis
        by (auto simp: tcl_language_facts tcl_captured_def)
    next
      case notin: False
      with found False show ?thesis
        by (auto simp: tcl_language_facts tcl_captured_def)
    qed
  qed
qed

theorem tcl_lexer_serves_parser_witness:
  "\<exists>text. longest_token (language_lex tree_sitter_tcl) (lex_state (lex_modes tree_sitter_tcl 1)) text tcl_anon_sym_set [] \<or>
      longest_token (language_lex tree_sitter_tcl) (lex_state (lex_modes tree_sitter_tcl 1)) text
        (keyword_capture_token tree_sitter_tcl) [] \<and>
      (\<exists>kw. keyword_lex_fn tree_sitter_tcl = Some kw \<and> longest_token kw 0 text tcl_anon_sym_set [])"
proof -
  have "table_value tree_sitter_tcl 1 tcl_anon_sym_set \<noteq> 0"
    by (simp add: tcl_read)
  then show ?thesis
    using tcl_lexer_serves_parser [of 1 tcl_anon_sym_set] by (simp add: tcl_sizes)
qed

end
