(* ===== verification/Mozjs_Lex.thy ===== *)
theory Mozjs_Lex
  imports Token_Regex
begin

text \<open>
  The generated lexers of the JavaScript grammar: \<^verbatim>\<open>ts_lex\<close> and
  \<^verbatim>\<open>ts_lex_keywords\<close> of \<^verbatim>\<open>tree-sitter-mozjs/src/parser.c\<close>, one definition
  per \<^verbatim>\<open>case\<close>, the character sets they ask for, and the symbols of
  \<^verbatim>\<open>enum ts_symbol_identifiers\<close>. The runtime runs the second lexer on a word the first
  one has found, to see whether it is a keyword.
\<close>

section \<open>Symbols\<close>

abbreviation (input) mozjs_sym_identifier :: TSSymbol where "mozjs_sym_identifier \<equiv> 1"
abbreviation (input) mozjs_sym_hash_bang_line :: TSSymbol where "mozjs_sym_hash_bang_line \<equiv> 2"
abbreviation (input) mozjs_anon_sym_export :: TSSymbol where "mozjs_anon_sym_export \<equiv> 3"
abbreviation (input) mozjs_anon_sym_STAR :: TSSymbol where "mozjs_anon_sym_STAR \<equiv> 4"
abbreviation (input) mozjs_anon_sym_default :: TSSymbol where "mozjs_anon_sym_default \<equiv> 5"
abbreviation (input) mozjs_anon_sym_as :: TSSymbol where "mozjs_anon_sym_as \<equiv> 6"
abbreviation (input) mozjs_anon_sym_LBRACE :: TSSymbol where "mozjs_anon_sym_LBRACE \<equiv> 7"
abbreviation (input) mozjs_anon_sym_COMMA :: TSSymbol where "mozjs_anon_sym_COMMA \<equiv> 8"
abbreviation (input) mozjs_anon_sym_RBRACE :: TSSymbol where "mozjs_anon_sym_RBRACE \<equiv> 9"
abbreviation (input) mozjs_anon_sym_import :: TSSymbol where "mozjs_anon_sym_import \<equiv> 10"
abbreviation (input) mozjs_anon_sym_from :: TSSymbol where "mozjs_anon_sym_from \<equiv> 11"
abbreviation (input) mozjs_anon_sym_with :: TSSymbol where "mozjs_anon_sym_with \<equiv> 12"
abbreviation (input) mozjs_anon_sym_var :: TSSymbol where "mozjs_anon_sym_var \<equiv> 13"
abbreviation (input) mozjs_anon_sym_let :: TSSymbol where "mozjs_anon_sym_let \<equiv> 14"
abbreviation (input) mozjs_anon_sym_const :: TSSymbol where "mozjs_anon_sym_const \<equiv> 15"
abbreviation (input) mozjs_anon_sym_using :: TSSymbol where "mozjs_anon_sym_using \<equiv> 16"
abbreviation (input) mozjs_anon_sym_await :: TSSymbol where "mozjs_anon_sym_await \<equiv> 17"
abbreviation (input) mozjs_anon_sym_of :: TSSymbol where "mozjs_anon_sym_of \<equiv> 18"
abbreviation (input) mozjs_anon_sym_else :: TSSymbol where "mozjs_anon_sym_else \<equiv> 19"
abbreviation (input) mozjs_anon_sym_if :: TSSymbol where "mozjs_anon_sym_if \<equiv> 20"
abbreviation (input) mozjs_anon_sym_switch :: TSSymbol where "mozjs_anon_sym_switch \<equiv> 21"
abbreviation (input) mozjs_anon_sym_for :: TSSymbol where "mozjs_anon_sym_for \<equiv> 22"
abbreviation (input) mozjs_anon_sym_LPAREN :: TSSymbol where "mozjs_anon_sym_LPAREN \<equiv> 23"
abbreviation (input) mozjs_anon_sym_SEMI :: TSSymbol where "mozjs_anon_sym_SEMI \<equiv> 24"
abbreviation (input) mozjs_anon_sym_RPAREN :: TSSymbol where "mozjs_anon_sym_RPAREN \<equiv> 25"
abbreviation (input) mozjs_anon_sym_in :: TSSymbol where "mozjs_anon_sym_in \<equiv> 26"
abbreviation (input) mozjs_anon_sym_while :: TSSymbol where "mozjs_anon_sym_while \<equiv> 27"
abbreviation (input) mozjs_anon_sym_do :: TSSymbol where "mozjs_anon_sym_do \<equiv> 28"
abbreviation (input) mozjs_anon_sym_try :: TSSymbol where "mozjs_anon_sym_try \<equiv> 29"
abbreviation (input) mozjs_anon_sym_break :: TSSymbol where "mozjs_anon_sym_break \<equiv> 30"
abbreviation (input) mozjs_anon_sym_continue :: TSSymbol where "mozjs_anon_sym_continue \<equiv> 31"
abbreviation (input) mozjs_anon_sym_debugger :: TSSymbol where "mozjs_anon_sym_debugger \<equiv> 32"
abbreviation (input) mozjs_anon_sym_return :: TSSymbol where "mozjs_anon_sym_return \<equiv> 33"
abbreviation (input) mozjs_anon_sym_throw :: TSSymbol where "mozjs_anon_sym_throw \<equiv> 34"
abbreviation (input) mozjs_anon_sym_COLON :: TSSymbol where "mozjs_anon_sym_COLON \<equiv> 35"
abbreviation (input) mozjs_anon_sym_case :: TSSymbol where "mozjs_anon_sym_case \<equiv> 36"
abbreviation (input) mozjs_anon_sym_catch :: TSSymbol where "mozjs_anon_sym_catch \<equiv> 37"
abbreviation (input) mozjs_anon_sym_finally :: TSSymbol where "mozjs_anon_sym_finally \<equiv> 38"
abbreviation (input) mozjs_anon_sym_yield :: TSSymbol where "mozjs_anon_sym_yield \<equiv> 39"
abbreviation (input) mozjs_anon_sym_EQ :: TSSymbol where "mozjs_anon_sym_EQ \<equiv> 40"
abbreviation (input) mozjs_anon_sym_LBRACK :: TSSymbol where "mozjs_anon_sym_LBRACK \<equiv> 41"
abbreviation (input) mozjs_anon_sym_RBRACK :: TSSymbol where "mozjs_anon_sym_RBRACK \<equiv> 42"
abbreviation (input) mozjs_sym_html_character_reference :: TSSymbol where "mozjs_sym_html_character_reference \<equiv> 43"
abbreviation (input) mozjs_anon_sym_LT :: TSSymbol where "mozjs_anon_sym_LT \<equiv> 44"
abbreviation (input) mozjs_anon_sym_GT :: TSSymbol where "mozjs_anon_sym_GT \<equiv> 45"
abbreviation (input) mozjs_sym_jsx_identifier :: TSSymbol where "mozjs_sym_jsx_identifier \<equiv> 46"
abbreviation (input) mozjs_anon_sym_DOT :: TSSymbol where "mozjs_anon_sym_DOT \<equiv> 47"
abbreviation (input) mozjs_anon_sym_LT_SLASH :: TSSymbol where "mozjs_anon_sym_LT_SLASH \<equiv> 48"
abbreviation (input) mozjs_anon_sym_SLASH_GT :: TSSymbol where "mozjs_anon_sym_SLASH_GT \<equiv> 49"
abbreviation (input) mozjs_anon_sym_DQUOTE :: TSSymbol where "mozjs_anon_sym_DQUOTE \<equiv> 50"
abbreviation (input) mozjs_anon_sym_SQUOTE :: TSSymbol where "mozjs_anon_sym_SQUOTE \<equiv> 51"
abbreviation (input) mozjs_sym_unescaped_double_jsx_string_fragment :: TSSymbol where "mozjs_sym_unescaped_double_jsx_string_fragment \<equiv> 52"
abbreviation (input) mozjs_sym_unescaped_single_jsx_string_fragment :: TSSymbol where "mozjs_sym_unescaped_single_jsx_string_fragment \<equiv> 53"
abbreviation (input) mozjs_anon_sym_class :: TSSymbol where "mozjs_anon_sym_class \<equiv> 54"
abbreviation (input) mozjs_anon_sym_extends :: TSSymbol where "mozjs_anon_sym_extends \<equiv> 55"
abbreviation (input) mozjs_anon_sym_async :: TSSymbol where "mozjs_anon_sym_async \<equiv> 56"
abbreviation (input) mozjs_anon_sym_function :: TSSymbol where "mozjs_anon_sym_function \<equiv> 57"
abbreviation (input) mozjs_anon_sym_EQ_GT :: TSSymbol where "mozjs_anon_sym_EQ_GT \<equiv> 58"
abbreviation (input) mozjs_sym_optional_chain :: TSSymbol where "mozjs_sym_optional_chain \<equiv> 59"
abbreviation (input) mozjs_anon_sym_new :: TSSymbol where "mozjs_anon_sym_new \<equiv> 60"
abbreviation (input) mozjs_anon_sym_PLUS_EQ :: TSSymbol where "mozjs_anon_sym_PLUS_EQ \<equiv> 61"
abbreviation (input) mozjs_anon_sym_DASH_EQ :: TSSymbol where "mozjs_anon_sym_DASH_EQ \<equiv> 62"
abbreviation (input) mozjs_anon_sym_STAR_EQ :: TSSymbol where "mozjs_anon_sym_STAR_EQ \<equiv> 63"
abbreviation (input) mozjs_anon_sym_SLASH_EQ :: TSSymbol where "mozjs_anon_sym_SLASH_EQ \<equiv> 64"
abbreviation (input) mozjs_anon_sym_PERCENT_EQ :: TSSymbol where "mozjs_anon_sym_PERCENT_EQ \<equiv> 65"
abbreviation (input) mozjs_anon_sym_CARET_EQ :: TSSymbol where "mozjs_anon_sym_CARET_EQ \<equiv> 66"
abbreviation (input) mozjs_anon_sym_AMP_EQ :: TSSymbol where "mozjs_anon_sym_AMP_EQ \<equiv> 67"
abbreviation (input) mozjs_anon_sym_PIPE_EQ :: TSSymbol where "mozjs_anon_sym_PIPE_EQ \<equiv> 68"
abbreviation (input) mozjs_anon_sym_GT_GT_EQ :: TSSymbol where "mozjs_anon_sym_GT_GT_EQ \<equiv> 69"
abbreviation (input) mozjs_anon_sym_GT_GT_GT_EQ :: TSSymbol where "mozjs_anon_sym_GT_GT_GT_EQ \<equiv> 70"
abbreviation (input) mozjs_anon_sym_LT_LT_EQ :: TSSymbol where "mozjs_anon_sym_LT_LT_EQ \<equiv> 71"
abbreviation (input) mozjs_anon_sym_STAR_STAR_EQ :: TSSymbol where "mozjs_anon_sym_STAR_STAR_EQ \<equiv> 72"
abbreviation (input) mozjs_anon_sym_AMP_AMP_EQ :: TSSymbol where "mozjs_anon_sym_AMP_AMP_EQ \<equiv> 73"
abbreviation (input) mozjs_anon_sym_PIPE_PIPE_EQ :: TSSymbol where "mozjs_anon_sym_PIPE_PIPE_EQ \<equiv> 74"
abbreviation (input) mozjs_anon_sym_QMARK_QMARK_EQ :: TSSymbol where "mozjs_anon_sym_QMARK_QMARK_EQ \<equiv> 75"
abbreviation (input) mozjs_anon_sym_DOT_DOT_DOT :: TSSymbol where "mozjs_anon_sym_DOT_DOT_DOT \<equiv> 76"
abbreviation (input) mozjs_anon_sym_AMP_AMP :: TSSymbol where "mozjs_anon_sym_AMP_AMP \<equiv> 77"
abbreviation (input) mozjs_anon_sym_PIPE_PIPE :: TSSymbol where "mozjs_anon_sym_PIPE_PIPE \<equiv> 78"
abbreviation (input) mozjs_anon_sym_GT_GT :: TSSymbol where "mozjs_anon_sym_GT_GT \<equiv> 79"
abbreviation (input) mozjs_anon_sym_GT_GT_GT :: TSSymbol where "mozjs_anon_sym_GT_GT_GT \<equiv> 80"
abbreviation (input) mozjs_anon_sym_LT_LT :: TSSymbol where "mozjs_anon_sym_LT_LT \<equiv> 81"
abbreviation (input) mozjs_anon_sym_AMP :: TSSymbol where "mozjs_anon_sym_AMP \<equiv> 82"
abbreviation (input) mozjs_anon_sym_CARET :: TSSymbol where "mozjs_anon_sym_CARET \<equiv> 83"
abbreviation (input) mozjs_anon_sym_PIPE :: TSSymbol where "mozjs_anon_sym_PIPE \<equiv> 84"
abbreviation (input) mozjs_anon_sym_PLUS :: TSSymbol where "mozjs_anon_sym_PLUS \<equiv> 85"
abbreviation (input) mozjs_anon_sym_DASH :: TSSymbol where "mozjs_anon_sym_DASH \<equiv> 86"
abbreviation (input) mozjs_anon_sym_SLASH :: TSSymbol where "mozjs_anon_sym_SLASH \<equiv> 87"
abbreviation (input) mozjs_anon_sym_PERCENT :: TSSymbol where "mozjs_anon_sym_PERCENT \<equiv> 88"
abbreviation (input) mozjs_anon_sym_STAR_STAR :: TSSymbol where "mozjs_anon_sym_STAR_STAR \<equiv> 89"
abbreviation (input) mozjs_anon_sym_LT_EQ :: TSSymbol where "mozjs_anon_sym_LT_EQ \<equiv> 90"
abbreviation (input) mozjs_anon_sym_EQ_EQ :: TSSymbol where "mozjs_anon_sym_EQ_EQ \<equiv> 91"
abbreviation (input) mozjs_anon_sym_EQ_EQ_EQ :: TSSymbol where "mozjs_anon_sym_EQ_EQ_EQ \<equiv> 92"
abbreviation (input) mozjs_anon_sym_BANG_EQ :: TSSymbol where "mozjs_anon_sym_BANG_EQ \<equiv> 93"
abbreviation (input) mozjs_anon_sym_BANG_EQ_EQ :: TSSymbol where "mozjs_anon_sym_BANG_EQ_EQ \<equiv> 94"
abbreviation (input) mozjs_anon_sym_GT_EQ :: TSSymbol where "mozjs_anon_sym_GT_EQ \<equiv> 95"
abbreviation (input) mozjs_anon_sym_QMARK_QMARK :: TSSymbol where "mozjs_anon_sym_QMARK_QMARK \<equiv> 96"
abbreviation (input) mozjs_anon_sym_instanceof :: TSSymbol where "mozjs_anon_sym_instanceof \<equiv> 97"
abbreviation (input) mozjs_anon_sym_BANG :: TSSymbol where "mozjs_anon_sym_BANG \<equiv> 98"
abbreviation (input) mozjs_anon_sym_TILDE :: TSSymbol where "mozjs_anon_sym_TILDE \<equiv> 99"
abbreviation (input) mozjs_anon_sym_typeof :: TSSymbol where "mozjs_anon_sym_typeof \<equiv> 100"
abbreviation (input) mozjs_anon_sym_void :: TSSymbol where "mozjs_anon_sym_void \<equiv> 101"
abbreviation (input) mozjs_anon_sym_delete :: TSSymbol where "mozjs_anon_sym_delete \<equiv> 102"
abbreviation (input) mozjs_anon_sym_PLUS_PLUS :: TSSymbol where "mozjs_anon_sym_PLUS_PLUS \<equiv> 103"
abbreviation (input) mozjs_anon_sym_DASH_DASH :: TSSymbol where "mozjs_anon_sym_DASH_DASH \<equiv> 104"
abbreviation (input) mozjs_sym_unescaped_double_string_fragment :: TSSymbol where "mozjs_sym_unescaped_double_string_fragment \<equiv> 105"
abbreviation (input) mozjs_sym_unescaped_single_string_fragment :: TSSymbol where "mozjs_sym_unescaped_single_string_fragment \<equiv> 106"
abbreviation (input) mozjs_sym_escape_sequence :: TSSymbol where "mozjs_sym_escape_sequence \<equiv> 107"
abbreviation (input) mozjs_sym_comment :: TSSymbol where "mozjs_sym_comment \<equiv> 108"
abbreviation (input) mozjs_anon_sym_BQUOTE :: TSSymbol where "mozjs_anon_sym_BQUOTE \<equiv> 109"
abbreviation (input) mozjs_anon_sym_DOLLAR_LBRACE :: TSSymbol where "mozjs_anon_sym_DOLLAR_LBRACE \<equiv> 110"
abbreviation (input) mozjs_anon_sym_SLASH2 :: TSSymbol where "mozjs_anon_sym_SLASH2 \<equiv> 111"
abbreviation (input) mozjs_sym_regex_pattern :: TSSymbol where "mozjs_sym_regex_pattern \<equiv> 112"
abbreviation (input) mozjs_sym_regex_flags :: TSSymbol where "mozjs_sym_regex_flags \<equiv> 113"
abbreviation (input) mozjs_sym_number :: TSSymbol where "mozjs_sym_number \<equiv> 114"
abbreviation (input) mozjs_sym_private_property_identifier :: TSSymbol where "mozjs_sym_private_property_identifier \<equiv> 115"
abbreviation (input) mozjs_anon_sym_target :: TSSymbol where "mozjs_anon_sym_target \<equiv> 116"
abbreviation (input) mozjs_anon_sym_meta :: TSSymbol where "mozjs_anon_sym_meta \<equiv> 117"
abbreviation (input) mozjs_sym_this :: TSSymbol where "mozjs_sym_this \<equiv> 118"
abbreviation (input) mozjs_sym_super :: TSSymbol where "mozjs_sym_super \<equiv> 119"
abbreviation (input) mozjs_sym_true :: TSSymbol where "mozjs_sym_true \<equiv> 120"
abbreviation (input) mozjs_sym_false :: TSSymbol where "mozjs_sym_false \<equiv> 121"
abbreviation (input) mozjs_sym_null :: TSSymbol where "mozjs_sym_null \<equiv> 122"
abbreviation (input) mozjs_sym_undefined :: TSSymbol where "mozjs_sym_undefined \<equiv> 123"
abbreviation (input) mozjs_anon_sym_AT :: TSSymbol where "mozjs_anon_sym_AT \<equiv> 124"
abbreviation (input) mozjs_anon_sym_static :: TSSymbol where "mozjs_anon_sym_static \<equiv> 125"
abbreviation (input) mozjs_aux_sym_method_definition_token1 :: TSSymbol where "mozjs_aux_sym_method_definition_token1 \<equiv> 126"
abbreviation (input) mozjs_anon_sym_get :: TSSymbol where "mozjs_anon_sym_get \<equiv> 127"
abbreviation (input) mozjs_anon_sym_set :: TSSymbol where "mozjs_anon_sym_set \<equiv> 128"
abbreviation (input) mozjs_sym_preproc :: TSSymbol where "mozjs_sym_preproc \<equiv> 129"
abbreviation (input) mozjs_sym__automatic_semicolon :: TSSymbol where "mozjs_sym__automatic_semicolon \<equiv> 130"
abbreviation (input) mozjs_sym__template_chars :: TSSymbol where "mozjs_sym__template_chars \<equiv> 131"
abbreviation (input) mozjs_sym__ternary_qmark :: TSSymbol where "mozjs_sym__ternary_qmark \<equiv> 132"
abbreviation (input) mozjs_sym_html_comment :: TSSymbol where "mozjs_sym_html_comment \<equiv> 133"
abbreviation (input) mozjs_sym_jsx_text :: TSSymbol where "mozjs_sym_jsx_text \<equiv> 134"
abbreviation (input) mozjs_sym_program :: TSSymbol where "mozjs_sym_program \<equiv> 135"
abbreviation (input) mozjs_sym_export_statement :: TSSymbol where "mozjs_sym_export_statement \<equiv> 136"
abbreviation (input) mozjs_sym_namespace_export :: TSSymbol where "mozjs_sym_namespace_export \<equiv> 137"
abbreviation (input) mozjs_sym_export_clause :: TSSymbol where "mozjs_sym_export_clause \<equiv> 138"
abbreviation (input) mozjs_sym_export_specifier :: TSSymbol where "mozjs_sym_export_specifier \<equiv> 139"
abbreviation (input) mozjs_sym__module_export_name :: TSSymbol where "mozjs_sym__module_export_name \<equiv> 140"
abbreviation (input) mozjs_sym_declaration :: TSSymbol where "mozjs_sym_declaration \<equiv> 141"
abbreviation (input) mozjs_sym_import :: TSSymbol where "mozjs_sym_import \<equiv> 142"
abbreviation (input) mozjs_sym_import_statement :: TSSymbol where "mozjs_sym_import_statement \<equiv> 143"
abbreviation (input) mozjs_sym_import_clause :: TSSymbol where "mozjs_sym_import_clause \<equiv> 144"
abbreviation (input) mozjs_sym__from_clause :: TSSymbol where "mozjs_sym__from_clause \<equiv> 145"
abbreviation (input) mozjs_sym_namespace_import :: TSSymbol where "mozjs_sym_namespace_import \<equiv> 146"
abbreviation (input) mozjs_sym_named_imports :: TSSymbol where "mozjs_sym_named_imports \<equiv> 147"
abbreviation (input) mozjs_sym_import_specifier :: TSSymbol where "mozjs_sym_import_specifier \<equiv> 148"
abbreviation (input) mozjs_sym_import_attribute :: TSSymbol where "mozjs_sym_import_attribute \<equiv> 149"
abbreviation (input) mozjs_sym_statement :: TSSymbol where "mozjs_sym_statement \<equiv> 150"
abbreviation (input) mozjs_sym_expression_statement :: TSSymbol where "mozjs_sym_expression_statement \<equiv> 151"
abbreviation (input) mozjs_sym_variable_declaration :: TSSymbol where "mozjs_sym_variable_declaration \<equiv> 152"
abbreviation (input) mozjs_sym_lexical_declaration :: TSSymbol where "mozjs_sym_lexical_declaration \<equiv> 153"
abbreviation (input) mozjs_sym_using_declaration :: TSSymbol where "mozjs_sym_using_declaration \<equiv> 154"
abbreviation (input) mozjs_sym_variable_declarator :: TSSymbol where "mozjs_sym_variable_declarator \<equiv> 155"
abbreviation (input) mozjs_sym_statement_block :: TSSymbol where "mozjs_sym_statement_block \<equiv> 156"
abbreviation (input) mozjs_sym_else_clause :: TSSymbol where "mozjs_sym_else_clause \<equiv> 157"
abbreviation (input) mozjs_sym_if_statement :: TSSymbol where "mozjs_sym_if_statement \<equiv> 158"
abbreviation (input) mozjs_sym_switch_statement :: TSSymbol where "mozjs_sym_switch_statement \<equiv> 159"
abbreviation (input) mozjs_sym_for_statement :: TSSymbol where "mozjs_sym_for_statement \<equiv> 160"
abbreviation (input) mozjs_sym_for_in_statement :: TSSymbol where "mozjs_sym_for_in_statement \<equiv> 161"
abbreviation (input) mozjs_sym__for_header :: TSSymbol where "mozjs_sym__for_header \<equiv> 162"
abbreviation (input) mozjs_sym_while_statement :: TSSymbol where "mozjs_sym_while_statement \<equiv> 163"
abbreviation (input) mozjs_sym_do_statement :: TSSymbol where "mozjs_sym_do_statement \<equiv> 164"
abbreviation (input) mozjs_sym_try_statement :: TSSymbol where "mozjs_sym_try_statement \<equiv> 165"
abbreviation (input) mozjs_sym_with_statement :: TSSymbol where "mozjs_sym_with_statement \<equiv> 166"
abbreviation (input) mozjs_sym_break_statement :: TSSymbol where "mozjs_sym_break_statement \<equiv> 167"
abbreviation (input) mozjs_sym_continue_statement :: TSSymbol where "mozjs_sym_continue_statement \<equiv> 168"
abbreviation (input) mozjs_sym_debugger_statement :: TSSymbol where "mozjs_sym_debugger_statement \<equiv> 169"
abbreviation (input) mozjs_sym_return_statement :: TSSymbol where "mozjs_sym_return_statement \<equiv> 170"
abbreviation (input) mozjs_sym_throw_statement :: TSSymbol where "mozjs_sym_throw_statement \<equiv> 171"
abbreviation (input) mozjs_sym_empty_statement :: TSSymbol where "mozjs_sym_empty_statement \<equiv> 172"
abbreviation (input) mozjs_sym_labeled_statement :: TSSymbol where "mozjs_sym_labeled_statement \<equiv> 173"
abbreviation (input) mozjs_sym_switch_body :: TSSymbol where "mozjs_sym_switch_body \<equiv> 174"
abbreviation (input) mozjs_sym_switch_case :: TSSymbol where "mozjs_sym_switch_case \<equiv> 175"
abbreviation (input) mozjs_sym_switch_default :: TSSymbol where "mozjs_sym_switch_default \<equiv> 176"
abbreviation (input) mozjs_sym_catch_clause :: TSSymbol where "mozjs_sym_catch_clause \<equiv> 177"
abbreviation (input) mozjs_sym_finally_clause :: TSSymbol where "mozjs_sym_finally_clause \<equiv> 178"
abbreviation (input) mozjs_sym_parenthesized_expression :: TSSymbol where "mozjs_sym_parenthesized_expression \<equiv> 179"
abbreviation (input) mozjs_sym_expression :: TSSymbol where "mozjs_sym_expression \<equiv> 180"
abbreviation (input) mozjs_sym_primary_expression :: TSSymbol where "mozjs_sym_primary_expression \<equiv> 181"
abbreviation (input) mozjs_sym_yield_expression :: TSSymbol where "mozjs_sym_yield_expression \<equiv> 182"
abbreviation (input) mozjs_sym_object :: TSSymbol where "mozjs_sym_object \<equiv> 183"
abbreviation (input) mozjs_sym_object_pattern :: TSSymbol where "mozjs_sym_object_pattern \<equiv> 184"
abbreviation (input) mozjs_sym_assignment_pattern :: TSSymbol where "mozjs_sym_assignment_pattern \<equiv> 185"
abbreviation (input) mozjs_sym_object_assignment_pattern :: TSSymbol where "mozjs_sym_object_assignment_pattern \<equiv> 186"
abbreviation (input) mozjs_sym_array :: TSSymbol where "mozjs_sym_array \<equiv> 187"
abbreviation (input) mozjs_sym_array_pattern :: TSSymbol where "mozjs_sym_array_pattern \<equiv> 188"
abbreviation (input) mozjs_sym_jsx_element :: TSSymbol where "mozjs_sym_jsx_element \<equiv> 189"
abbreviation (input) mozjs_sym_jsx_expression :: TSSymbol where "mozjs_sym_jsx_expression \<equiv> 190"
abbreviation (input) mozjs_sym_jsx_opening_element :: TSSymbol where "mozjs_sym_jsx_opening_element \<equiv> 191"
abbreviation (input) mozjs_sym_nested_identifier :: TSSymbol where "mozjs_sym_nested_identifier \<equiv> 192"
abbreviation (input) mozjs_sym_jsx_namespace_name :: TSSymbol where "mozjs_sym_jsx_namespace_name \<equiv> 193"
abbreviation (input) mozjs_sym_jsx_closing_element :: TSSymbol where "mozjs_sym_jsx_closing_element \<equiv> 194"
abbreviation (input) mozjs_sym_jsx_self_closing_element :: TSSymbol where "mozjs_sym_jsx_self_closing_element \<equiv> 195"
abbreviation (input) mozjs_sym_jsx_attribute :: TSSymbol where "mozjs_sym_jsx_attribute \<equiv> 196"
abbreviation (input) mozjs_sym__jsx_string :: TSSymbol where "mozjs_sym__jsx_string \<equiv> 197"
abbreviation (input) mozjs_sym_class :: TSSymbol where "mozjs_sym_class \<equiv> 198"
abbreviation (input) mozjs_sym_class_declaration :: TSSymbol where "mozjs_sym_class_declaration \<equiv> 199"
abbreviation (input) mozjs_sym_class_heritage :: TSSymbol where "mozjs_sym_class_heritage \<equiv> 200"
abbreviation (input) mozjs_sym_function_expression :: TSSymbol where "mozjs_sym_function_expression \<equiv> 201"
abbreviation (input) mozjs_sym_function_declaration :: TSSymbol where "mozjs_sym_function_declaration \<equiv> 202"
abbreviation (input) mozjs_sym_generator_function :: TSSymbol where "mozjs_sym_generator_function \<equiv> 203"
abbreviation (input) mozjs_sym_generator_function_declaration :: TSSymbol where "mozjs_sym_generator_function_declaration \<equiv> 204"
abbreviation (input) mozjs_sym_arrow_function :: TSSymbol where "mozjs_sym_arrow_function \<equiv> 205"
abbreviation (input) mozjs_sym_call_expression :: TSSymbol where "mozjs_sym_call_expression \<equiv> 206"
abbreviation (input) mozjs_sym_new_expression :: TSSymbol where "mozjs_sym_new_expression \<equiv> 207"
abbreviation (input) mozjs_sym_await_expression :: TSSymbol where "mozjs_sym_await_expression \<equiv> 208"
abbreviation (input) mozjs_sym_member_expression :: TSSymbol where "mozjs_sym_member_expression \<equiv> 209"
abbreviation (input) mozjs_sym_subscript_expression :: TSSymbol where "mozjs_sym_subscript_expression \<equiv> 210"
abbreviation (input) mozjs_sym_assignment_expression :: TSSymbol where "mozjs_sym_assignment_expression \<equiv> 211"
abbreviation (input) mozjs_sym__augmented_assignment_lhs :: TSSymbol where "mozjs_sym__augmented_assignment_lhs \<equiv> 212"
abbreviation (input) mozjs_sym_augmented_assignment_expression :: TSSymbol where "mozjs_sym_augmented_assignment_expression \<equiv> 213"
abbreviation (input) mozjs_sym__initializer :: TSSymbol where "mozjs_sym__initializer \<equiv> 214"
abbreviation (input) mozjs_sym__destructuring_pattern :: TSSymbol where "mozjs_sym__destructuring_pattern \<equiv> 215"
abbreviation (input) mozjs_sym_spread_element :: TSSymbol where "mozjs_sym_spread_element \<equiv> 216"
abbreviation (input) mozjs_sym_ternary_expression :: TSSymbol where "mozjs_sym_ternary_expression \<equiv> 217"
abbreviation (input) mozjs_sym_binary_expression :: TSSymbol where "mozjs_sym_binary_expression \<equiv> 218"
abbreviation (input) mozjs_sym_unary_expression :: TSSymbol where "mozjs_sym_unary_expression \<equiv> 219"
abbreviation (input) mozjs_sym_update_expression :: TSSymbol where "mozjs_sym_update_expression \<equiv> 220"
abbreviation (input) mozjs_sym_sequence_expression :: TSSymbol where "mozjs_sym_sequence_expression \<equiv> 221"
abbreviation (input) mozjs_sym_string :: TSSymbol where "mozjs_sym_string \<equiv> 222"
abbreviation (input) mozjs_sym_template_string :: TSSymbol where "mozjs_sym_template_string \<equiv> 223"
abbreviation (input) mozjs_sym_template_substitution :: TSSymbol where "mozjs_sym_template_substitution \<equiv> 224"
abbreviation (input) mozjs_sym_regex :: TSSymbol where "mozjs_sym_regex \<equiv> 225"
abbreviation (input) mozjs_sym_meta_property :: TSSymbol where "mozjs_sym_meta_property \<equiv> 226"
abbreviation (input) mozjs_sym_arguments :: TSSymbol where "mozjs_sym_arguments \<equiv> 227"
abbreviation (input) mozjs_sym_decorator :: TSSymbol where "mozjs_sym_decorator \<equiv> 228"
abbreviation (input) mozjs_sym_decorator_member_expression :: TSSymbol where "mozjs_sym_decorator_member_expression \<equiv> 229"
abbreviation (input) mozjs_sym_decorator_call_expression :: TSSymbol where "mozjs_sym_decorator_call_expression \<equiv> 230"
abbreviation (input) mozjs_sym_class_body :: TSSymbol where "mozjs_sym_class_body \<equiv> 231"
abbreviation (input) mozjs_sym_field_definition :: TSSymbol where "mozjs_sym_field_definition \<equiv> 232"
abbreviation (input) mozjs_sym_formal_parameters :: TSSymbol where "mozjs_sym_formal_parameters \<equiv> 233"
abbreviation (input) mozjs_sym_class_static_block :: TSSymbol where "mozjs_sym_class_static_block \<equiv> 234"
abbreviation (input) mozjs_sym_pattern :: TSSymbol where "mozjs_sym_pattern \<equiv> 235"
abbreviation (input) mozjs_sym_rest_pattern :: TSSymbol where "mozjs_sym_rest_pattern \<equiv> 236"
abbreviation (input) mozjs_sym_method_definition :: TSSymbol where "mozjs_sym_method_definition \<equiv> 237"
abbreviation (input) mozjs_sym_pair :: TSSymbol where "mozjs_sym_pair \<equiv> 238"
abbreviation (input) mozjs_sym_pair_pattern :: TSSymbol where "mozjs_sym_pair_pattern \<equiv> 239"
abbreviation (input) mozjs_sym__property_name :: TSSymbol where "mozjs_sym__property_name \<equiv> 240"
abbreviation (input) mozjs_sym_computed_property_name :: TSSymbol where "mozjs_sym_computed_property_name \<equiv> 241"
abbreviation (input) mozjs_aux_sym_program_repeat1 :: TSSymbol where "mozjs_aux_sym_program_repeat1 \<equiv> 242"
abbreviation (input) mozjs_aux_sym_export_statement_repeat1 :: TSSymbol where "mozjs_aux_sym_export_statement_repeat1 \<equiv> 243"
abbreviation (input) mozjs_aux_sym_export_clause_repeat1 :: TSSymbol where "mozjs_aux_sym_export_clause_repeat1 \<equiv> 244"
abbreviation (input) mozjs_aux_sym_named_imports_repeat1 :: TSSymbol where "mozjs_aux_sym_named_imports_repeat1 \<equiv> 245"
abbreviation (input) mozjs_aux_sym_variable_declaration_repeat1 :: TSSymbol where "mozjs_aux_sym_variable_declaration_repeat1 \<equiv> 246"
abbreviation (input) mozjs_aux_sym_switch_body_repeat1 :: TSSymbol where "mozjs_aux_sym_switch_body_repeat1 \<equiv> 247"
abbreviation (input) mozjs_aux_sym_object_repeat1 :: TSSymbol where "mozjs_aux_sym_object_repeat1 \<equiv> 248"
abbreviation (input) mozjs_aux_sym_object_pattern_repeat1 :: TSSymbol where "mozjs_aux_sym_object_pattern_repeat1 \<equiv> 249"
abbreviation (input) mozjs_aux_sym_array_repeat1 :: TSSymbol where "mozjs_aux_sym_array_repeat1 \<equiv> 250"
abbreviation (input) mozjs_aux_sym_array_pattern_repeat1 :: TSSymbol where "mozjs_aux_sym_array_pattern_repeat1 \<equiv> 251"
abbreviation (input) mozjs_aux_sym_jsx_element_repeat1 :: TSSymbol where "mozjs_aux_sym_jsx_element_repeat1 \<equiv> 252"
abbreviation (input) mozjs_aux_sym_jsx_opening_element_repeat1 :: TSSymbol where "mozjs_aux_sym_jsx_opening_element_repeat1 \<equiv> 253"
abbreviation (input) mozjs_aux_sym__jsx_string_repeat1 :: TSSymbol where "mozjs_aux_sym__jsx_string_repeat1 \<equiv> 254"
abbreviation (input) mozjs_aux_sym__jsx_string_repeat2 :: TSSymbol where "mozjs_aux_sym__jsx_string_repeat2 \<equiv> 255"
abbreviation (input) mozjs_aux_sym_sequence_expression_repeat1 :: TSSymbol where "mozjs_aux_sym_sequence_expression_repeat1 \<equiv> 256"
abbreviation (input) mozjs_aux_sym_string_repeat1 :: TSSymbol where "mozjs_aux_sym_string_repeat1 \<equiv> 257"
abbreviation (input) mozjs_aux_sym_string_repeat2 :: TSSymbol where "mozjs_aux_sym_string_repeat2 \<equiv> 258"
abbreviation (input) mozjs_aux_sym_template_string_repeat1 :: TSSymbol where "mozjs_aux_sym_template_string_repeat1 \<equiv> 259"
abbreviation (input) mozjs_aux_sym_class_body_repeat1 :: TSSymbol where "mozjs_aux_sym_class_body_repeat1 \<equiv> 260"
abbreviation (input) mozjs_aux_sym_formal_parameters_repeat1 :: TSSymbol where "mozjs_aux_sym_formal_parameters_repeat1 \<equiv> 261"
abbreviation (input) mozjs_alias_sym_property_identifier :: TSSymbol where "mozjs_alias_sym_property_identifier \<equiv> 262"
abbreviation (input) mozjs_alias_sym_shorthand_property_identifier :: TSSymbol where "mozjs_alias_sym_shorthand_property_identifier \<equiv> 263"
abbreviation (input) mozjs_alias_sym_shorthand_property_identifier_pattern :: TSSymbol where "mozjs_alias_sym_shorthand_property_identifier_pattern \<equiv> 264"
abbreviation (input) mozjs_alias_sym_statement_identifier :: TSSymbol where "mozjs_alias_sym_statement_identifier \<equiv> 265"

section \<open>Character sets\<close>

definition mozjs_extras_character_set_1 :: "TSCharacterRange list" where
  "mozjs_extras_character_set_1 = [\<lparr>range_start = 9, range_end = 13\<rparr>,
    \<lparr>range_start = 32, range_end = 32\<rparr>, \<lparr>range_start = 160, range_end =
    160\<rparr>, \<lparr>range_start = 5760, range_end = 5760\<rparr>, \<lparr>range_start =
    8192, range_end = 8203\<rparr>, \<lparr>range_start = 8232, range_end = 8233\<rparr>,
    \<lparr>range_start = 8239, range_end = 8239\<rparr>, \<lparr>range_start = 8287, range_end =
    8288\<rparr>, \<lparr>range_start = 12288, range_end = 12288\<rparr>, \<lparr>range_start =
    65279, range_end = 65279\<rparr>]"

abbreviation mozjs_in_extras :: "codepoint \<Rightarrow> bool" where
  "mozjs_in_extras la \<equiv> set_contains mozjs_extras_character_set_1 10 la = Some True"

definition mozjs_sym_identifier_character_set_1 :: "TSCharacterRange list" where
  "mozjs_sym_identifier_character_set_1 = [\<lparr>range_start = 36, range_end = 36\<rparr>,
    \<lparr>range_start = 65, range_end = 90\<rparr>, \<lparr>range_start = 92, range_end =
    92\<rparr>, \<lparr>range_start = 95, range_end = 95\<rparr>, \<lparr>range_start = 97,
    range_end = 122\<rparr>, \<lparr>range_start = 127, range_end = 159\<rparr>,
    \<lparr>range_start = 161, range_end = 5759\<rparr>, \<lparr>range_start = 5761, range_end =
    8191\<rparr>, \<lparr>range_start = 8204, range_end = 8231\<rparr>, \<lparr>range_start =
    8234, range_end = 8238\<rparr>, \<lparr>range_start = 8240, range_end = 8286\<rparr>,
    \<lparr>range_start = 8289, range_end = 12287\<rparr>, \<lparr>range_start = 12289, range_end
    = 65278\<rparr>, \<lparr>range_start = 65280, range_end = 1114111\<rparr>]"

abbreviation mozjs_starts_identifier :: "codepoint \<Rightarrow> bool" where
  "mozjs_starts_identifier la \<equiv> set_contains mozjs_sym_identifier_character_set_1 14 la = Some True"

definition mozjs_sym_identifier_character_set_2 :: "TSCharacterRange list" where
  "mozjs_sym_identifier_character_set_2 = [\<lparr>range_start = 36, range_end = 36\<rparr>,
    \<lparr>range_start = 48, range_end = 57\<rparr>, \<lparr>range_start = 65, range_end =
    90\<rparr>, \<lparr>range_start = 92, range_end = 92\<rparr>, \<lparr>range_start = 95,
    range_end = 95\<rparr>, \<lparr>range_start = 97, range_end = 122\<rparr>,
    \<lparr>range_start = 127, range_end = 159\<rparr>, \<lparr>range_start = 161, range_end =
    5759\<rparr>, \<lparr>range_start = 5761, range_end = 8191\<rparr>, \<lparr>range_start =
    8204, range_end = 8231\<rparr>, \<lparr>range_start = 8234, range_end = 8238\<rparr>,
    \<lparr>range_start = 8240, range_end = 8286\<rparr>, \<lparr>range_start = 8289, range_end =
    12287\<rparr>, \<lparr>range_start = 12289, range_end = 65278\<rparr>, \<lparr>range_start =
    65280, range_end = 1114111\<rparr>]"

abbreviation mozjs_in_identifier :: "codepoint \<Rightarrow> bool" where
  "mozjs_in_identifier la \<equiv> set_contains mozjs_sym_identifier_character_set_2 15 la = Some True"

lemma mozjs_in_extras_iff:
  "mozjs_in_extras c \<longleftrightarrow> 9 \<le> c \<and> c \<le> 13 \<or> c = 32 \<or> c = 160
    \<or> c = 5760 \<or> 8192 \<le> c \<and> c \<le> 8203 \<or> 8232 \<le> c \<and> c \<le> 8233
    \<or> c = 8239 \<or> 8287 \<le> c \<and> c \<le> 8288 \<or> c = 12288 \<or> c = 65279"
proof -
  let ?R = mozjs_extras_character_set_1
  have "ranges_sorted ?R" "?R \<noteq> []" "length ?R = 10"
    by (simp_all add: ranges_sorted_def mozjs_extras_character_set_1_def)
  then have "set_contains ?R 10 c = Some (\<exists>r\<in>set ?R. in_range r c)"
    using set_contains_mem [of ?R c] by simp
  then show ?thesis by (simp add: mozjs_extras_character_set_1_def in_range_def between_self)
qed

lemma mozjs_starts_identifier_iff:
  "mozjs_starts_identifier c \<longleftrightarrow> c = 36 \<or> 65 \<le> c \<and> c \<le> 90
    \<or> c = 92 \<or> c = 95 \<or> 97 \<le> c \<and> c \<le> 122 \<or> 127 \<le> c \<and> c
    \<le> 159 \<or> 161 \<le> c \<and> c \<le> 5759 \<or> 5761 \<le> c \<and> c \<le> 8191 \<or>
    8204 \<le> c \<and> c \<le> 8231 \<or> 8234 \<le> c \<and> c \<le> 8238 \<or> 8240 \<le> c
    \<and> c \<le> 8286 \<or> 8289 \<le> c \<and> c \<le> 12287 \<or> 12289 \<le> c \<and> c
    \<le> 65278 \<or> 65280 \<le> c \<and> c \<le> 1114111"
proof -
  let ?R = mozjs_sym_identifier_character_set_1
  have "ranges_sorted ?R" "?R \<noteq> []" "length ?R = 14"
    by (simp_all add: ranges_sorted_def mozjs_sym_identifier_character_set_1_def)
  then have "set_contains ?R 14 c = Some (\<exists>r\<in>set ?R. in_range r c)"
    using set_contains_mem [of ?R c] by simp
  then show ?thesis by (simp add: mozjs_sym_identifier_character_set_1_def in_range_def between_self)
qed

lemma mozjs_in_identifier_iff:
  "mozjs_in_identifier c \<longleftrightarrow> c = 36 \<or> 48 \<le> c \<and> c \<le> 57 \<or> 65
    \<le> c \<and> c \<le> 90 \<or> c = 92 \<or> c = 95 \<or> 97 \<le> c \<and> c \<le> 122 \<or>
    127 \<le> c \<and> c \<le> 159 \<or> 161 \<le> c \<and> c \<le> 5759 \<or> 5761 \<le> c
    \<and> c \<le> 8191 \<or> 8204 \<le> c \<and> c \<le> 8231 \<or> 8234 \<le> c \<and> c \<le>
    8238 \<or> 8240 \<le> c \<and> c \<le> 8286 \<or> 8289 \<le> c \<and> c \<le> 12287 \<or>
    12289 \<le> c \<and> c \<le> 65278 \<or> 65280 \<le> c \<and> c \<le> 1114111"
proof -
  let ?R = mozjs_sym_identifier_character_set_2
  have "ranges_sorted ?R" "?R \<noteq> []" "length ?R = 15"
    by (simp_all add: ranges_sorted_def mozjs_sym_identifier_character_set_2_def)
  then have "set_contains ?R 15 c = Some (\<exists>r\<in>set ?R. in_range r c)"
    using set_contains_mem [of ?R c] by simp
  then show ?thesis by (simp add: mozjs_sym_identifier_character_set_2_def in_range_def between_self)
qed

lemma mozjs_sets_nul [simp]:
  "set_contains mozjs_extras_character_set_1 10 0 \<noteq> Some True"
  "set_contains mozjs_sym_identifier_character_set_1 14 0 \<noteq> Some True"
  "set_contains mozjs_sym_identifier_character_set_2 15 0 \<noteq> Some True"
  by (simp_all add: mozjs_in_extras_iff mozjs_starts_identifier_iff mozjs_in_identifier_iff)

section \<open>The cases of the switch\<close>

definition mozjs_lex_0 :: "bool \<Rightarrow> codepoint \<Rightarrow> lex_case" where
  "mozjs_lex_0 eof la = (None,
      if eof then ADVANCE 139 else
      case ADVANCE_MAP [(CH_BANG, 239), (CH_DQUOTE, 172), (CH_HASH, 1), (CH_DOLLAR, 286),
        (CH_PERCENT, 227), (CH_AMP, 214), (CH_QUOTE, 173), (CH_LPAREN, 147), (CH_RPAREN, 149),
        (CH_STAR, 142), (CH_PLUS, 221), (CH_COMMA, 145), (CH_MINUS, 223), (CH_DOT, 168),
        (CH_SLASH, 266), (CH_0, 271), (CH_COLON, 150), (CH_SEMICOLON, 148), (CH_LT, 160),
        (CH_EQUALS, 153), (CH_GT, 164), (CH_QMARK, 41), (CH_AT, 291), (CH_LBRACKET, 155),
        (CH_BACKSLASH, 93), (CH_RBRACKET, 156), (CH_CARET, 217), (CH_BACKTICK, 264), (CH_s, 284),
        (CH_LBRACE, 144), (CH_BAR, 218), (CH_RBRACE, 146), (CH_TILDE, 240)] la of Some st
        \<Rightarrow> ADVANCE st | None \<Rightarrow> (
      if CH_1 \<le> la \<and> la \<le> CH_9 then ADVANCE 272 else
      if mozjs_in_extras la then SKIP 136 else
      if la > CH_AT then ADVANCE 288 else END_STATE))"

definition mozjs_lex_1 :: "bool \<Rightarrow> codepoint \<Rightarrow> lex_case" where
  "mozjs_lex_1 eof la = (None,
      if la = CH_LF then ADVANCE 293 else
      if la = CH_BANG then ADVANCE 140 else
      if la = CH_BACKSLASH then ADVANCE 3 else
      if mozjs_in_extras la \<or> (\<not> eof \<and> la \<le> 8) \<or> (14 \<le> la \<and> la
        \<le> 31) \<or> (CH_BANG \<le> la \<and> la \<le> CH_HASH) \<or> (CH_PERCENT \<le> la
        \<and> la \<le> CH_AT) \<or> (CH_LBRACKET \<le> la \<and> la \<le> CH_CARET) \<or> la =
        CH_BACKTICK \<or> (CH_LBRACE \<le> la \<and> la \<le> CH_TILDE) then ADVANCE 10 else
      if la > CH_HASH then ADVANCE 289 else END_STATE)"

definition mozjs_lex_2 :: "bool \<Rightarrow> codepoint \<Rightarrow> lex_case" where
  "mozjs_lex_2 eof la = (None,
      if la = CH_LF then ADVANCE 293 else
      if la = CH_BACKSLASH then ADVANCE 3 else
      if mozjs_in_extras la \<or> (\<not> eof \<and> la \<le> 8) \<or> (14 \<le> la \<and> la
        \<le> 31) \<or> (CH_BANG \<le> la \<and> la \<le> CH_HASH) \<or> (CH_PERCENT \<le> la
        \<and> la \<le> CH_AT) \<or> (CH_LBRACKET \<le> la \<and> la \<le> CH_CARET) \<or> la =
        CH_BACKTICK \<or> (CH_LBRACE \<le> la \<and> la \<le> CH_TILDE) then ADVANCE 10 else
      if la > CH_HASH then ADVANCE 289 else END_STATE)"

definition mozjs_lex_3 :: "bool \<Rightarrow> codepoint \<Rightarrow> lex_case" where
  "mozjs_lex_3 eof la = (None,
      if la = CH_LF then ADVANCE 293 else
      if la = CH_u then ADVANCE 4 else
      if la \<noteq> 0 then ADVANCE 10 else END_STATE)"

definition mozjs_lex_4 :: "bool \<Rightarrow> codepoint \<Rightarrow> lex_case" where
  "mozjs_lex_4 eof la = (None,
      if la = CH_LF then ADVANCE 293 else
      if la = CH_LBRACE then ADVANCE 7 else
      if (CH_0 \<le> la \<and> la \<le> CH_9) \<or> (CH_A \<le> la \<and> la \<le> CH_F) \<or>
        (CH_a \<le> la \<and> la \<le> CH_f) then ADVANCE 9 else
      if la \<noteq> 0 then ADVANCE 10 else END_STATE)"

definition mozjs_lex_5 :: "bool \<Rightarrow> codepoint \<Rightarrow> lex_case" where
  "mozjs_lex_5 eof la = (None,
      if la = CH_LF then ADVANCE 293 else
      if la = CH_RBRACE then ADVANCE 289 else
      if (CH_0 \<le> la \<and> la \<le> CH_9) \<or> (CH_A \<le> la \<and> la \<le> CH_F) \<or>
        (CH_a \<le> la \<and> la \<le> CH_f) then ADVANCE 5 else
      if la \<noteq> 0 then ADVANCE 10 else END_STATE)"

definition mozjs_lex_6 :: "bool \<Rightarrow> codepoint \<Rightarrow> lex_case" where
  "mozjs_lex_6 eof la = (None,
      if la = CH_LF then ADVANCE 293 else
      if (CH_0 \<le> la \<and> la \<le> CH_9) \<or> (CH_A \<le> la \<and> la \<le> CH_F) \<or>
        (CH_a \<le> la \<and> la \<le> CH_f) then ADVANCE 289 else
      if la \<noteq> 0 then ADVANCE 10 else END_STATE)"

definition mozjs_lex_7 :: "bool \<Rightarrow> codepoint \<Rightarrow> lex_case" where
  "mozjs_lex_7 eof la = (None,
      if la = CH_LF then ADVANCE 293 else
      if (CH_0 \<le> la \<and> la \<le> CH_9) \<or> (CH_A \<le> la \<and> la \<le> CH_F) \<or>
        (CH_a \<le> la \<and> la \<le> CH_f) then ADVANCE 5 else
      if la \<noteq> 0 then ADVANCE 10 else END_STATE)"

definition mozjs_lex_8 :: "bool \<Rightarrow> codepoint \<Rightarrow> lex_case" where
  "mozjs_lex_8 eof la = (None,
      if la = CH_LF then ADVANCE 293 else
      if (CH_0 \<le> la \<and> la \<le> CH_9) \<or> (CH_A \<le> la \<and> la \<le> CH_F) \<or>
        (CH_a \<le> la \<and> la \<le> CH_f) then ADVANCE 6 else
      if la \<noteq> 0 then ADVANCE 10 else END_STATE)"

definition mozjs_lex_9 :: "bool \<Rightarrow> codepoint \<Rightarrow> lex_case" where
  "mozjs_lex_9 eof la = (None,
      if la = CH_LF then ADVANCE 293 else
      if (CH_0 \<le> la \<and> la \<le> CH_9) \<or> (CH_A \<le> la \<and> la \<le> CH_F) \<or>
        (CH_a \<le> la \<and> la \<le> CH_f) then ADVANCE 8 else
      if la \<noteq> 0 then ADVANCE 10 else END_STATE)"

definition mozjs_lex_10 :: "bool \<Rightarrow> codepoint \<Rightarrow> lex_case" where
  "mozjs_lex_10 eof la = (None,
      if la = CH_LF then ADVANCE 293 else
      if la \<noteq> 0 then ADVANCE 10 else END_STATE)"

definition mozjs_lex_11 :: "bool \<Rightarrow> codepoint \<Rightarrow> lex_case" where
  "mozjs_lex_11 eof la = (None,
      if la = CH_LF then ADVANCE 292 else
      if (CH_TAB \<le> la \<and> la \<le> CH_CR) \<or> la = CH_SPACE then ADVANCE 11 else
        END_STATE)"

definition mozjs_lex_12 :: "bool \<Rightarrow> codepoint \<Rightarrow> lex_case" where
  "mozjs_lex_12 eof la = (None,
      if la = CH_LF then SKIP 46 else
      if la = CH_SLASH then ADVANCE 33 else
      if la = CH_LBRACKET then ADVANCE 88 else
      if la = CH_BACKSLASH then ADVANCE 135 else
      if mozjs_in_extras la then ADVANCE 267 else
      if la \<noteq> 0 then ADVANCE 268 else END_STATE)"

definition mozjs_lex_13 :: "bool \<Rightarrow> codepoint \<Rightarrow> lex_case" where
  "mozjs_lex_13 eof la = (None,
      case ADVANCE_MAP [(CH_BANG, 239), (CH_DQUOTE, 172), (CH_HASH, 89), (CH_PERCENT, 227),
        (CH_AMP, 214), (CH_QUOTE, 173), (CH_LPAREN, 147), (CH_RPAREN, 149), (CH_STAR, 142),
        (CH_PLUS, 221), (CH_COMMA, 145), (CH_MINUS, 223), (CH_DOT, 169), (CH_SLASH, 225), (CH_0,
        271), (CH_COLON, 150), (CH_SEMICOLON, 148), (CH_LT, 161), (CH_EQUALS, 153), (CH_GT, 164),
        (CH_QMARK, 41), (CH_AT, 291), (CH_LBRACKET, 155), (CH_BACKSLASH, 94), (CH_RBRACKET, 156),
        (CH_CARET, 217), (CH_BACKTICK, 264), (CH_LBRACE, 144), (CH_BAR, 218), (CH_RBRACE, 146),
        (CH_TILDE, 240)] la of Some st \<Rightarrow> ADVANCE st | None \<Rightarrow> (
      if CH_1 \<le> la \<and> la \<le> CH_9 then ADVANCE 272 else
      if mozjs_in_extras la then SKIP 13 else
      if la > CH_HASH then ADVANCE 288 else END_STATE))"

definition mozjs_lex_14 :: "bool \<Rightarrow> codepoint \<Rightarrow> lex_case" where
  "mozjs_lex_14 eof la = (None,
      case ADVANCE_MAP [(CH_BANG, 239), (CH_DQUOTE, 172), (CH_HASH, 89), (CH_PERCENT, 226),
        (CH_AMP, 215), (CH_QUOTE, 173), (CH_LPAREN, 147), (CH_RPAREN, 149), (CH_STAR, 143),
        (CH_PLUS, 220), (CH_COMMA, 145), (CH_MINUS, 222), (CH_DOT, 169), (CH_SLASH, 224), (CH_0,
        271), (CH_COLON, 150), (CH_SEMICOLON, 148), (CH_LT, 162), (CH_EQUALS, 152), (CH_GT, 165),
        (CH_QMARK, 42), (CH_AT, 291), (CH_LBRACKET, 155), (CH_BACKSLASH, 94), (CH_RBRACKET, 156),
        (CH_CARET, 216), (CH_BACKTICK, 264), (CH_LBRACE, 144), (CH_BAR, 219), (CH_RBRACE, 146),
        (CH_TILDE, 240)] la of Some st \<Rightarrow> ADVANCE st | None \<Rightarrow> (
      if CH_1 \<le> la \<and> la \<le> CH_9 then ADVANCE 272 else
      if mozjs_in_extras la then SKIP 14 else
      if la > CH_HASH then ADVANCE 288 else END_STATE))"

definition mozjs_lex_15 :: "bool \<Rightarrow> codepoint \<Rightarrow> lex_case" where
  "mozjs_lex_15 eof la = (None,
      case ADVANCE_MAP [(CH_BANG, 238), (CH_DQUOTE, 172), (CH_HASH, 2), (CH_QUOTE, 173),
        (CH_LPAREN, 147), (CH_STAR, 141), (CH_PLUS, 220), (CH_COMMA, 145), (CH_MINUS, 222),
        (CH_DOT, 39), (CH_SLASH, 224), (CH_0, 271), (CH_SEMICOLON, 148), (CH_LT, 158), (CH_AT,
        291), (CH_LBRACKET, 155), (CH_BACKSLASH, 94), (CH_BACKTICK, 264), (CH_s, 284),
        (CH_LBRACE, 144), (CH_RBRACE, 146), (CH_TILDE, 240)] la of Some st \<Rightarrow> ADVANCE
        st | None \<Rightarrow> (
      if CH_1 \<le> la \<and> la \<le> CH_9 then ADVANCE 272 else
      if mozjs_in_extras la then SKIP 15 else
      if la > CH_HASH \<and> (la < CH_PERCENT \<or> CH_AT < la) \<and> (la < CH_LBRACKET \<or>
        CH_CARET < la) \<and> (la < CH_LBRACE \<or> CH_TILDE < la) then ADVANCE 288 else
        END_STATE))"

definition mozjs_lex_16 :: "bool \<Rightarrow> codepoint \<Rightarrow> lex_case" where
  "mozjs_lex_16 eof la = (None,
      case ADVANCE_MAP [(CH_BANG, 238), (CH_DQUOTE, 172), (CH_HASH, 89), (CH_QUOTE, 173),
        (CH_LPAREN, 147), (CH_RPAREN, 149), (CH_PLUS, 220), (CH_COMMA, 145), (CH_MINUS, 222),
        (CH_DOT, 39), (CH_SLASH, 224), (CH_0, 271), (CH_SEMICOLON, 148), (CH_LT, 158),
        (CH_EQUALS, 151), (CH_AT, 291), (CH_LBRACKET, 155), (CH_BACKSLASH, 94), (CH_RBRACKET,
        156), (CH_BACKTICK, 264), (CH_LBRACE, 144), (CH_RBRACE, 146), (CH_TILDE, 240)] la of Some
        st \<Rightarrow> ADVANCE st | None \<Rightarrow> (
      if CH_1 \<le> la \<and> la \<le> CH_9 then ADVANCE 272 else
      if mozjs_in_extras la then SKIP 16 else
      if la > CH_HASH \<and> (la < CH_PERCENT \<or> CH_AT < la) \<and> (la < CH_LBRACKET \<or>
        CH_CARET < la) \<and> (la < CH_LBRACE \<or> CH_TILDE < la) then ADVANCE 288 else
        END_STATE))"

definition mozjs_lex_17 :: "bool \<Rightarrow> codepoint \<Rightarrow> lex_case" where
  "mozjs_lex_17 eof la = (None,
      case ADVANCE_MAP [(CH_BANG, 238), (CH_DQUOTE, 172), (CH_HASH, 89), (CH_QUOTE, 173),
        (CH_LPAREN, 147), (CH_PLUS, 220), (CH_MINUS, 222), (CH_DOT, 169), (CH_SLASH, 224), (CH_0,
        271), (CH_LT, 158), (CH_AT, 291), (CH_LBRACKET, 155), (CH_BACKSLASH, 94), (CH_BACKTICK,
        264), (CH_LBRACE, 144), (CH_TILDE, 240)] la of Some st \<Rightarrow> ADVANCE st | None
        \<Rightarrow> (
      if CH_1 \<le> la \<and> la \<le> CH_9 then ADVANCE 272 else
      if mozjs_in_extras la then SKIP 17 else
      if la > CH_HASH \<and> (la < CH_PERCENT \<or> CH_AT < la) \<and> (la < CH_LBRACKET \<or>
        CH_CARET < la) \<and> (la < CH_LBRACE \<or> CH_TILDE < la) then ADVANCE 288 else
        END_STATE))"

definition mozjs_lex_18 :: "bool \<Rightarrow> codepoint \<Rightarrow> lex_case" where
  "mozjs_lex_18 eof la = (None,
      case ADVANCE_MAP [(CH_BANG, 86), (CH_PERCENT, 226), (CH_AMP, 215), (CH_LPAREN, 147),
        (CH_RPAREN, 149), (CH_STAR, 143), (CH_PLUS, 220), (CH_COMMA, 145), (CH_MINUS, 222),
        (CH_DOT, 167), (CH_SLASH, 224), (CH_COLON, 150), (CH_SEMICOLON, 148), (CH_LT, 162),
        (CH_EQUALS, 87), (CH_GT, 165), (CH_QMARK, 42), (CH_LBRACKET, 155), (CH_BACKSLASH, 94),
        (CH_RBRACKET, 156), (CH_CARET, 216), (CH_BACKTICK, 264), (CH_LBRACE, 144), (CH_BAR, 219),
        (CH_RBRACE, 146)] la of Some st \<Rightarrow> ADVANCE st | None \<Rightarrow> (
      if CH_a \<le> la \<and> la \<le> CH_z then ADVANCE 269 else
      if mozjs_in_extras la then SKIP 19 else
      if la > CH_HASH \<and> (la < CH_PERCENT \<or> CH_AT < la) \<and> (la < CH_BACKTICK \<or>
        CH_TILDE < la) then ADVANCE 288 else END_STATE))"

definition mozjs_lex_19 :: "bool \<Rightarrow> codepoint \<Rightarrow> lex_case" where
  "mozjs_lex_19 eof la = (None,
      case ADVANCE_MAP [(CH_BANG, 86), (CH_PERCENT, 226), (CH_AMP, 215), (CH_LPAREN, 147),
        (CH_RPAREN, 149), (CH_STAR, 143), (CH_PLUS, 220), (CH_COMMA, 145), (CH_MINUS, 222),
        (CH_DOT, 167), (CH_SLASH, 224), (CH_COLON, 150), (CH_SEMICOLON, 148), (CH_LT, 162),
        (CH_EQUALS, 87), (CH_GT, 165), (CH_QMARK, 42), (CH_LBRACKET, 155), (CH_BACKSLASH, 94),
        (CH_RBRACKET, 156), (CH_CARET, 216), (CH_BACKTICK, 264), (CH_LBRACE, 144), (CH_BAR, 219),
        (CH_RBRACE, 146)] la of Some st \<Rightarrow> ADVANCE st | None \<Rightarrow> (
      if mozjs_in_extras la then SKIP 19 else
      if la > CH_HASH \<and> (la < CH_PERCENT \<or> CH_AT < la) \<and> (la < CH_LBRACE \<or>
        CH_TILDE < la) then ADVANCE 288 else END_STATE))"

definition mozjs_lex_20 :: "bool \<Rightarrow> codepoint \<Rightarrow> lex_case" where
  "mozjs_lex_20 eof la = (None,
      case ADVANCE_MAP [(CH_DQUOTE, 172), (CH_HASH, 89), (CH_AMP, 25), (CH_QUOTE, 173), (CH_STAR,
        141), (CH_COMMA, 145), (CH_DOT, 39), (CH_SLASH, 33), (CH_0, 271), (CH_SEMICOLON, 148),
        (CH_LT, 159), (CH_AT, 291), (CH_LBRACKET, 155), (CH_BACKSLASH, 94), (CH_s, 284),
        (CH_LBRACE, 144), (CH_RBRACE, 146)] la of Some st \<Rightarrow> ADVANCE st | None
        \<Rightarrow> (
      if CH_1 \<le> la \<and> la \<le> CH_9 then ADVANCE 272 else
      if mozjs_in_extras la then SKIP 20 else
      if la > CH_HASH \<and> (la < CH_PERCENT \<or> CH_AT < la) \<and> (la < CH_LBRACKET \<or>
        CH_CARET < la) \<and> la \<noteq> CH_BACKTICK \<and> (la < CH_LBRACE \<or> CH_TILDE < la)
        then ADVANCE 288 else END_STATE))"

definition mozjs_lex_21 :: "bool \<Rightarrow> codepoint \<Rightarrow> lex_case" where
  "mozjs_lex_21 eof la = (None,
      case ADVANCE_MAP [(CH_DQUOTE, 172), (CH_HASH, 89), (CH_QUOTE, 173), (CH_LPAREN, 147),
        (CH_STAR, 141), (CH_DOT, 169), (CH_SLASH, 33), (CH_0, 271), (CH_AT, 291), (CH_LBRACKET,
        155), (CH_BACKSLASH, 94), (CH_s, 284)] la of Some st \<Rightarrow> ADVANCE st | None
        \<Rightarrow> (
      if CH_1 \<le> la \<and> la \<le> CH_9 then ADVANCE 272 else
      if mozjs_in_extras la then SKIP 21 else
      if la > CH_HASH \<and> (la < CH_PERCENT \<or> CH_AT < la) \<and> (la < CH_LBRACKET \<or>
        CH_CARET < la) \<and> la \<noteq> CH_BACKTICK \<and> (la < CH_LBRACE \<or> CH_TILDE < la)
        then ADVANCE 288 else END_STATE))"

definition mozjs_lex_22 :: "bool \<Rightarrow> codepoint \<Rightarrow> lex_case" where
  "mozjs_lex_22 eof la = (None,
      if la = CH_DQUOTE then ADVANCE 172 else
      if la = CH_AMP then ADVANCE 26 else
      if la = CH_SLASH then ADVANCE 175 else
      if mozjs_in_extras la then ADVANCE 174 else
      if la \<noteq> 0 then ADVANCE 176 else END_STATE)"

definition mozjs_lex_23 :: "bool \<Rightarrow> codepoint \<Rightarrow> lex_case" where
  "mozjs_lex_23 eof la = (None,
      if la = CH_DQUOTE then ADVANCE 172 else
      if la = CH_SLASH then ADVANCE 33 else
      if mozjs_in_extras la then SKIP 23 else END_STATE)"

definition mozjs_lex_24 :: "bool \<Rightarrow> codepoint \<Rightarrow> lex_case" where
  "mozjs_lex_24 eof la = (None,
      if la = CH_DQUOTE then ADVANCE 172 else
      if la = CH_SLASH then ADVANCE 243 else
      if la = CH_BACKSLASH then ADVANCE 96 else
      if la = CH_LF \<or> la = CH_CR then SKIP 23 else
      if mozjs_in_extras la then ADVANCE 246 else
      if la \<noteq> 0 then ADVANCE 248 else END_STATE)"

definition mozjs_lex_25 :: "bool \<Rightarrow> codepoint \<Rightarrow> lex_case" where
  "mozjs_lex_25 eof la = (None,
      if la = CH_HASH then ADVANCE 107 else
      if (CH_A \<le> la \<and> la \<le> CH_Z) \<or> (CH_a \<le> la \<and> la \<le> CH_z) then
        ADVANCE 85 else END_STATE)"

definition mozjs_lex_26 :: "bool \<Rightarrow> codepoint \<Rightarrow> lex_case" where
  "mozjs_lex_26 eof la = (None,
      if la = CH_HASH then ADVANCE 107 else
      if (CH_A \<le> la \<and> la \<le> CH_Z) \<or> (CH_a \<le> la \<and> la \<le> CH_z) then
        ADVANCE 85 else
      if la \<noteq> 0 then ADVANCE 176 else END_STATE)"

definition mozjs_lex_27 :: "bool \<Rightarrow> codepoint \<Rightarrow> lex_case" where
  "mozjs_lex_27 eof la = (None,
      if la = CH_HASH then ADVANCE 107 else
      if (CH_A \<le> la \<and> la \<le> CH_Z) \<or> (CH_a \<le> la \<and> la \<le> CH_z) then
        ADVANCE 85 else
      if la \<noteq> 0 then ADVANCE 182 else END_STATE)"

definition mozjs_lex_28 :: "bool \<Rightarrow> codepoint \<Rightarrow> lex_case" where
  "mozjs_lex_28 eof la = (None,
      if la = CH_DOLLAR then ADVANCE 97 else
      if la = CH_SLASH then ADVANCE 33 else
      if la = CH_BACKSLASH then ADVANCE 96 else
      if la = CH_BACKTICK then ADVANCE 264 else
      if mozjs_in_extras la then SKIP 29 else END_STATE)"

definition mozjs_lex_29 :: "bool \<Rightarrow> codepoint \<Rightarrow> lex_case" where
  "mozjs_lex_29 eof la = (None,
      if la = CH_DOLLAR then ADVANCE 97 else
      if la = CH_SLASH then ADVANCE 33 else
      if la = CH_BACKTICK then ADVANCE 264 else
      if mozjs_in_extras la then SKIP 29 else END_STATE)"

definition mozjs_lex_30 :: "bool \<Rightarrow> codepoint \<Rightarrow> lex_case" where
  "mozjs_lex_30 eof la = (None,
      if la = CH_AMP then ADVANCE 27 else
      if la = CH_QUOTE then ADVANCE 173 else
      if la = CH_SLASH then ADVANCE 181 else
      if mozjs_in_extras la then ADVANCE 180 else
      if la \<noteq> 0 then ADVANCE 182 else END_STATE)"

definition mozjs_lex_31 :: "bool \<Rightarrow> codepoint \<Rightarrow> lex_case" where
  "mozjs_lex_31 eof la = (None,
      if la = CH_QUOTE then ADVANCE 173 else
      if la = CH_SLASH then ADVANCE 33 else
      if mozjs_in_extras la then SKIP 31 else END_STATE)"

definition mozjs_lex_32 :: "bool \<Rightarrow> codepoint \<Rightarrow> lex_case" where
  "mozjs_lex_32 eof la = (None,
      if la = CH_QUOTE then ADVANCE 173 else
      if la = CH_SLASH then ADVANCE 249 else
      if la = CH_BACKSLASH then ADVANCE 96 else
      if la = CH_LF \<or> la = CH_CR then SKIP 31 else
      if mozjs_in_extras la then ADVANCE 252 else
      if la \<noteq> 0 then ADVANCE 254 else END_STATE)"

definition mozjs_lex_33 :: "bool \<Rightarrow> codepoint \<Rightarrow> lex_case" where
  "mozjs_lex_33 eof la = (None,
      if la = CH_STAR then ADVANCE 36 else
      if la = CH_SLASH then ADVANCE 263 else END_STATE)"

definition mozjs_lex_34 :: "bool \<Rightarrow> codepoint \<Rightarrow> lex_case" where
  "mozjs_lex_34 eof la = (None,
      if la = CH_STAR then ADVANCE 36 else
      if la = CH_SLASH then ADVANCE 263 else
      if la = CH_GT then ADVANCE 171 else END_STATE)"

definition mozjs_lex_35 :: "bool \<Rightarrow> codepoint \<Rightarrow> lex_case" where
  "mozjs_lex_35 eof la = (None,
      if la = CH_STAR then ADVANCE 35 else
      if la = CH_SLASH then ADVANCE 260 else
      if la \<noteq> 0 then ADVANCE 36 else END_STATE)"

definition mozjs_lex_36 :: "bool \<Rightarrow> codepoint \<Rightarrow> lex_case" where
  "mozjs_lex_36 eof la = (None,
      if la = CH_STAR then ADVANCE 35 else
      if la \<noteq> 0 then ADVANCE 36 else END_STATE)"

definition mozjs_lex_37 :: "bool \<Rightarrow> codepoint \<Rightarrow> lex_case" where
  "mozjs_lex_37 eof la = (None,
      if la = CH_STAR then ADVANCE 177 else
      if la = CH_HASH \<or> (CH_A \<le> la \<and> la \<le> CH_Z) \<or> (CH_a \<le> la \<and> la
        \<le> CH_z) then ADVANCE 36 else
      if la \<noteq> 0 then ADVANCE 178 else END_STATE)"

definition mozjs_lex_38 :: "bool \<Rightarrow> codepoint \<Rightarrow> lex_case" where
  "mozjs_lex_38 eof la = (None,
      if la = CH_STAR then ADVANCE 183 else
      if la = CH_HASH \<or> (CH_A \<le> la \<and> la \<le> CH_Z) \<or> (CH_a \<le> la \<and> la
        \<le> CH_z) then ADVANCE 36 else
      if la \<noteq> 0 then ADVANCE 184 else END_STATE)"

definition mozjs_lex_39 :: "bool \<Rightarrow> codepoint \<Rightarrow> lex_case" where
  "mozjs_lex_39 eof la = (None,
      if la = CH_DOT then ADVANCE 43 else
      if CH_0 \<le> la \<and> la \<le> CH_9 then ADVANCE 277 else END_STATE)"

definition mozjs_lex_40 :: "bool \<Rightarrow> codepoint \<Rightarrow> lex_case" where
  "mozjs_lex_40 eof la = (None,
      if la = CH_DOT then ADVANCE 187 else END_STATE)"

definition mozjs_lex_41 :: "bool \<Rightarrow> codepoint \<Rightarrow> lex_case" where
  "mozjs_lex_41 eof la = (None,
      if la = CH_DOT then ADVANCE 187 else
      if la = CH_QMARK then ADVANCE 237 else END_STATE)"

definition mozjs_lex_42 :: "bool \<Rightarrow> codepoint \<Rightarrow> lex_case" where
  "mozjs_lex_42 eof la = (None,
      if la = CH_DOT then ADVANCE 187 else
      if la = CH_QMARK then ADVANCE 236 else END_STATE)"

definition mozjs_lex_43 :: "bool \<Rightarrow> codepoint \<Rightarrow> lex_case" where
  "mozjs_lex_43 eof la = (None,
      if la = CH_DOT then ADVANCE 203 else END_STATE)"

definition mozjs_lex_44 :: "bool \<Rightarrow> codepoint \<Rightarrow> lex_case" where
  "mozjs_lex_44 eof la = (None,
      if la = CH_DOT then ADVANCE 167 else
      if la = CH_SLASH then ADVANCE 34 else
      if la = CH_COLON then ADVANCE 150 else
      if la = CH_EQUALS then ADVANCE 151 else
      if la = CH_GT then ADVANCE 163 else
      if la = CH_BACKSLASH then ADVANCE 94 else
      if la = CH_LBRACE then ADVANCE 144 else
      if mozjs_in_extras la then SKIP 44 else
      if la = CH_DOLLAR \<or> (CH_A \<le> la \<and> la \<le> CH_Z) \<or> la = CH_UNDERSCORE \<or>
        (CH_a \<le> la \<and> la \<le> CH_z) then ADVANCE 280 else
      if la > CH_TILDE then ADVANCE 288 else END_STATE)"

definition mozjs_lex_45 :: "bool \<Rightarrow> codepoint \<Rightarrow> lex_case" where
  "mozjs_lex_45 eof la = (None,
      if la = CH_SLASH then ADVANCE 266 else
      if mozjs_in_extras la then SKIP 46 else END_STATE)"

definition mozjs_lex_46 :: "bool \<Rightarrow> codepoint \<Rightarrow> lex_case" where
  "mozjs_lex_46 eof la = (None,
      if la = CH_SLASH then ADVANCE 33 else
      if mozjs_in_extras la then SKIP 46 else END_STATE)"

definition mozjs_lex_47 :: "bool \<Rightarrow> codepoint \<Rightarrow> lex_case" where
  "mozjs_lex_47 eof la = (None,
      if la = CH_SEMICOLON then ADVANCE 157 else END_STATE)"

definition mozjs_lex_48 :: "bool \<Rightarrow> codepoint \<Rightarrow> lex_case" where
  "mozjs_lex_48 eof la = (None,
      if la = CH_SEMICOLON then ADVANCE 157 else
      if CH_0 \<le> la \<and> la \<le> CH_9 then ADVANCE 47 else END_STATE)"

definition mozjs_lex_49 :: "bool \<Rightarrow> codepoint \<Rightarrow> lex_case" where
  "mozjs_lex_49 eof la = (None,
      if la = CH_SEMICOLON then ADVANCE 157 else
      if CH_0 \<le> la \<and> la \<le> CH_9 then ADVANCE 48 else END_STATE)"

definition mozjs_lex_50 :: "bool \<Rightarrow> codepoint \<Rightarrow> lex_case" where
  "mozjs_lex_50 eof la = (None,
      if la = CH_SEMICOLON then ADVANCE 157 else
      if CH_0 \<le> la \<and> la \<le> CH_9 then ADVANCE 49 else END_STATE)"

definition mozjs_lex_51 :: "bool \<Rightarrow> codepoint \<Rightarrow> lex_case" where
  "mozjs_lex_51 eof la = (None,
      if la = CH_SEMICOLON then ADVANCE 157 else
      if CH_0 \<le> la \<and> la \<le> CH_9 then ADVANCE 50 else END_STATE)"

definition mozjs_lex_52 :: "bool \<Rightarrow> codepoint \<Rightarrow> lex_case" where
  "mozjs_lex_52 eof la = (None,
      if la = CH_SEMICOLON then ADVANCE 157 else
      if (CH_0 \<le> la \<and> la \<le> CH_9) \<or> (CH_A \<le> la \<and> la \<le> CH_F) \<or>
        (CH_a \<le> la \<and> la \<le> CH_f) then ADVANCE 47 else END_STATE)"

definition mozjs_lex_53 :: "bool \<Rightarrow> codepoint \<Rightarrow> lex_case" where
  "mozjs_lex_53 eof la = (None,
      if la = CH_SEMICOLON then ADVANCE 157 else
      if (CH_0 \<le> la \<and> la \<le> CH_9) \<or> (CH_A \<le> la \<and> la \<le> CH_F) \<or>
        (CH_a \<le> la \<and> la \<le> CH_f) then ADVANCE 52 else END_STATE)"

definition mozjs_lex_54 :: "bool \<Rightarrow> codepoint \<Rightarrow> lex_case" where
  "mozjs_lex_54 eof la = (None,
      if la = CH_SEMICOLON then ADVANCE 157 else
      if (CH_0 \<le> la \<and> la \<le> CH_9) \<or> (CH_A \<le> la \<and> la \<le> CH_F) \<or>
        (CH_a \<le> la \<and> la \<le> CH_f) then ADVANCE 53 else END_STATE)"

definition mozjs_lex_55 :: "bool \<Rightarrow> codepoint \<Rightarrow> lex_case" where
  "mozjs_lex_55 eof la = (None,
      if la = CH_SEMICOLON then ADVANCE 157 else
      if (CH_0 \<le> la \<and> la \<le> CH_9) \<or> (CH_A \<le> la \<and> la \<le> CH_F) \<or>
        (CH_a \<le> la \<and> la \<le> CH_f) then ADVANCE 54 else END_STATE)"

definition mozjs_lex_56 :: "bool \<Rightarrow> codepoint \<Rightarrow> lex_case" where
  "mozjs_lex_56 eof la = (None,
      if la = CH_SEMICOLON then ADVANCE 157 else
      if (CH_0 \<le> la \<and> la \<le> CH_9) \<or> (CH_A \<le> la \<and> la \<le> CH_F) \<or>
        (CH_a \<le> la \<and> la \<le> CH_f) then ADVANCE 55 else END_STATE)"

definition mozjs_lex_57 :: "bool \<Rightarrow> codepoint \<Rightarrow> lex_case" where
  "mozjs_lex_57 eof la = (None,
      if la = CH_SEMICOLON then ADVANCE 157 else
      if (CH_A \<le> la \<and> la \<le> CH_Z) \<or> (CH_a \<le> la \<and> la \<le> CH_z) then
        ADVANCE 47 else END_STATE)"

definition mozjs_lex_58 :: "bool \<Rightarrow> codepoint \<Rightarrow> lex_case" where
  "mozjs_lex_58 eof la = (None,
      if la = CH_SEMICOLON then ADVANCE 157 else
      if (CH_A \<le> la \<and> la \<le> CH_Z) \<or> (CH_a \<le> la \<and> la \<le> CH_z) then
        ADVANCE 57 else END_STATE)"

definition mozjs_lex_59 :: "bool \<Rightarrow> codepoint \<Rightarrow> lex_case" where
  "mozjs_lex_59 eof la = (None,
      if la = CH_SEMICOLON then ADVANCE 157 else
      if (CH_A \<le> la \<and> la \<le> CH_Z) \<or> (CH_a \<le> la \<and> la \<le> CH_z) then
        ADVANCE 58 else END_STATE)"

definition mozjs_lex_60 :: "bool \<Rightarrow> codepoint \<Rightarrow> lex_case" where
  "mozjs_lex_60 eof la = (None,
      if la = CH_SEMICOLON then ADVANCE 157 else
      if (CH_A \<le> la \<and> la \<le> CH_Z) \<or> (CH_a \<le> la \<and> la \<le> CH_z) then
        ADVANCE 59 else END_STATE)"

definition mozjs_lex_61 :: "bool \<Rightarrow> codepoint \<Rightarrow> lex_case" where
  "mozjs_lex_61 eof la = (None,
      if la = CH_SEMICOLON then ADVANCE 157 else
      if (CH_A \<le> la \<and> la \<le> CH_Z) \<or> (CH_a \<le> la \<and> la \<le> CH_z) then
        ADVANCE 60 else END_STATE)"

definition mozjs_lex_62 :: "bool \<Rightarrow> codepoint \<Rightarrow> lex_case" where
  "mozjs_lex_62 eof la = (None,
      if la = CH_SEMICOLON then ADVANCE 157 else
      if (CH_A \<le> la \<and> la \<le> CH_Z) \<or> (CH_a \<le> la \<and> la \<le> CH_z) then
        ADVANCE 61 else END_STATE)"

definition mozjs_lex_63 :: "bool \<Rightarrow> codepoint \<Rightarrow> lex_case" where
  "mozjs_lex_63 eof la = (None,
      if la = CH_SEMICOLON then ADVANCE 157 else
      if (CH_A \<le> la \<and> la \<le> CH_Z) \<or> (CH_a \<le> la \<and> la \<le> CH_z) then
        ADVANCE 62 else END_STATE)"

definition mozjs_lex_64 :: "bool \<Rightarrow> codepoint \<Rightarrow> lex_case" where
  "mozjs_lex_64 eof la = (None,
      if la = CH_SEMICOLON then ADVANCE 157 else
      if (CH_A \<le> la \<and> la \<le> CH_Z) \<or> (CH_a \<le> la \<and> la \<le> CH_z) then
        ADVANCE 63 else END_STATE)"

definition mozjs_lex_65 :: "bool \<Rightarrow> codepoint \<Rightarrow> lex_case" where
  "mozjs_lex_65 eof la = (None,
      if la = CH_SEMICOLON then ADVANCE 157 else
      if (CH_A \<le> la \<and> la \<le> CH_Z) \<or> (CH_a \<le> la \<and> la \<le> CH_z) then
        ADVANCE 64 else END_STATE)"

definition mozjs_lex_66 :: "bool \<Rightarrow> codepoint \<Rightarrow> lex_case" where
  "mozjs_lex_66 eof la = (None,
      if la = CH_SEMICOLON then ADVANCE 157 else
      if (CH_A \<le> la \<and> la \<le> CH_Z) \<or> (CH_a \<le> la \<and> la \<le> CH_z) then
        ADVANCE 65 else END_STATE)"

definition mozjs_lex_67 :: "bool \<Rightarrow> codepoint \<Rightarrow> lex_case" where
  "mozjs_lex_67 eof la = (None,
      if la = CH_SEMICOLON then ADVANCE 157 else
      if (CH_A \<le> la \<and> la \<le> CH_Z) \<or> (CH_a \<le> la \<and> la \<le> CH_z) then
        ADVANCE 66 else END_STATE)"

definition mozjs_lex_68 :: "bool \<Rightarrow> codepoint \<Rightarrow> lex_case" where
  "mozjs_lex_68 eof la = (None,
      if la = CH_SEMICOLON then ADVANCE 157 else
      if (CH_A \<le> la \<and> la \<le> CH_Z) \<or> (CH_a \<le> la \<and> la \<le> CH_z) then
        ADVANCE 67 else END_STATE)"

definition mozjs_lex_69 :: "bool \<Rightarrow> codepoint \<Rightarrow> lex_case" where
  "mozjs_lex_69 eof la = (None,
      if la = CH_SEMICOLON then ADVANCE 157 else
      if (CH_A \<le> la \<and> la \<le> CH_Z) \<or> (CH_a \<le> la \<and> la \<le> CH_z) then
        ADVANCE 68 else END_STATE)"

definition mozjs_lex_70 :: "bool \<Rightarrow> codepoint \<Rightarrow> lex_case" where
  "mozjs_lex_70 eof la = (None,
      if la = CH_SEMICOLON then ADVANCE 157 else
      if (CH_A \<le> la \<and> la \<le> CH_Z) \<or> (CH_a \<le> la \<and> la \<le> CH_z) then
        ADVANCE 69 else END_STATE)"

definition mozjs_lex_71 :: "bool \<Rightarrow> codepoint \<Rightarrow> lex_case" where
  "mozjs_lex_71 eof la = (None,
      if la = CH_SEMICOLON then ADVANCE 157 else
      if (CH_A \<le> la \<and> la \<le> CH_Z) \<or> (CH_a \<le> la \<and> la \<le> CH_z) then
        ADVANCE 70 else END_STATE)"

definition mozjs_lex_72 :: "bool \<Rightarrow> codepoint \<Rightarrow> lex_case" where
  "mozjs_lex_72 eof la = (None,
      if la = CH_SEMICOLON then ADVANCE 157 else
      if (CH_A \<le> la \<and> la \<le> CH_Z) \<or> (CH_a \<le> la \<and> la \<le> CH_z) then
        ADVANCE 71 else END_STATE)"

definition mozjs_lex_73 :: "bool \<Rightarrow> codepoint \<Rightarrow> lex_case" where
  "mozjs_lex_73 eof la = (None,
      if la = CH_SEMICOLON then ADVANCE 157 else
      if (CH_A \<le> la \<and> la \<le> CH_Z) \<or> (CH_a \<le> la \<and> la \<le> CH_z) then
        ADVANCE 72 else END_STATE)"

definition mozjs_lex_74 :: "bool \<Rightarrow> codepoint \<Rightarrow> lex_case" where
  "mozjs_lex_74 eof la = (None,
      if la = CH_SEMICOLON then ADVANCE 157 else
      if (CH_A \<le> la \<and> la \<le> CH_Z) \<or> (CH_a \<le> la \<and> la \<le> CH_z) then
        ADVANCE 73 else END_STATE)"

definition mozjs_lex_75 :: "bool \<Rightarrow> codepoint \<Rightarrow> lex_case" where
  "mozjs_lex_75 eof la = (None,
      if la = CH_SEMICOLON then ADVANCE 157 else
      if (CH_A \<le> la \<and> la \<le> CH_Z) \<or> (CH_a \<le> la \<and> la \<le> CH_z) then
        ADVANCE 74 else END_STATE)"

definition mozjs_lex_76 :: "bool \<Rightarrow> codepoint \<Rightarrow> lex_case" where
  "mozjs_lex_76 eof la = (None,
      if la = CH_SEMICOLON then ADVANCE 157 else
      if (CH_A \<le> la \<and> la \<le> CH_Z) \<or> (CH_a \<le> la \<and> la \<le> CH_z) then
        ADVANCE 75 else END_STATE)"

definition mozjs_lex_77 :: "bool \<Rightarrow> codepoint \<Rightarrow> lex_case" where
  "mozjs_lex_77 eof la = (None,
      if la = CH_SEMICOLON then ADVANCE 157 else
      if (CH_A \<le> la \<and> la \<le> CH_Z) \<or> (CH_a \<le> la \<and> la \<le> CH_z) then
        ADVANCE 76 else END_STATE)"

definition mozjs_lex_78 :: "bool \<Rightarrow> codepoint \<Rightarrow> lex_case" where
  "mozjs_lex_78 eof la = (None,
      if la = CH_SEMICOLON then ADVANCE 157 else
      if (CH_A \<le> la \<and> la \<le> CH_Z) \<or> (CH_a \<le> la \<and> la \<le> CH_z) then
        ADVANCE 77 else END_STATE)"

definition mozjs_lex_79 :: "bool \<Rightarrow> codepoint \<Rightarrow> lex_case" where
  "mozjs_lex_79 eof la = (None,
      if la = CH_SEMICOLON then ADVANCE 157 else
      if (CH_A \<le> la \<and> la \<le> CH_Z) \<or> (CH_a \<le> la \<and> la \<le> CH_z) then
        ADVANCE 78 else END_STATE)"

definition mozjs_lex_80 :: "bool \<Rightarrow> codepoint \<Rightarrow> lex_case" where
  "mozjs_lex_80 eof la = (None,
      if la = CH_SEMICOLON then ADVANCE 157 else
      if (CH_A \<le> la \<and> la \<le> CH_Z) \<or> (CH_a \<le> la \<and> la \<le> CH_z) then
        ADVANCE 79 else END_STATE)"

definition mozjs_lex_81 :: "bool \<Rightarrow> codepoint \<Rightarrow> lex_case" where
  "mozjs_lex_81 eof la = (None,
      if la = CH_SEMICOLON then ADVANCE 157 else
      if (CH_A \<le> la \<and> la \<le> CH_Z) \<or> (CH_a \<le> la \<and> la \<le> CH_z) then
        ADVANCE 80 else END_STATE)"

definition mozjs_lex_82 :: "bool \<Rightarrow> codepoint \<Rightarrow> lex_case" where
  "mozjs_lex_82 eof la = (None,
      if la = CH_SEMICOLON then ADVANCE 157 else
      if (CH_A \<le> la \<and> la \<le> CH_Z) \<or> (CH_a \<le> la \<and> la \<le> CH_z) then
        ADVANCE 81 else END_STATE)"

definition mozjs_lex_83 :: "bool \<Rightarrow> codepoint \<Rightarrow> lex_case" where
  "mozjs_lex_83 eof la = (None,
      if la = CH_SEMICOLON then ADVANCE 157 else
      if (CH_A \<le> la \<and> la \<le> CH_Z) \<or> (CH_a \<le> la \<and> la \<le> CH_z) then
        ADVANCE 82 else END_STATE)"

definition mozjs_lex_84 :: "bool \<Rightarrow> codepoint \<Rightarrow> lex_case" where
  "mozjs_lex_84 eof la = (None,
      if la = CH_SEMICOLON then ADVANCE 157 else
      if (CH_A \<le> la \<and> la \<le> CH_Z) \<or> (CH_a \<le> la \<and> la \<le> CH_z) then
        ADVANCE 83 else END_STATE)"

definition mozjs_lex_85 :: "bool \<Rightarrow> codepoint \<Rightarrow> lex_case" where
  "mozjs_lex_85 eof la = (None,
      if la = CH_SEMICOLON then ADVANCE 157 else
      if (CH_A \<le> la \<and> la \<le> CH_Z) \<or> (CH_a \<le> la \<and> la \<le> CH_z) then
        ADVANCE 84 else END_STATE)"

definition mozjs_lex_86 :: "bool \<Rightarrow> codepoint \<Rightarrow> lex_case" where
  "mozjs_lex_86 eof la = (None,
      if la = CH_EQUALS then ADVANCE 233 else END_STATE)"

definition mozjs_lex_87 :: "bool \<Rightarrow> codepoint \<Rightarrow> lex_case" where
  "mozjs_lex_87 eof la = (None,
      if la = CH_EQUALS then ADVANCE 231 else END_STATE)"

definition mozjs_lex_88 :: "bool \<Rightarrow> codepoint \<Rightarrow> lex_case" where
  "mozjs_lex_88 eof la = (None,
      if la = CH_BACKSLASH then ADVANCE 134 else
      if la = CH_RBRACKET then ADVANCE 268 else
      if la \<noteq> 0 \<and> la \<noteq> CH_LF then ADVANCE 88 else END_STATE)"

definition mozjs_lex_89 :: "bool \<Rightarrow> codepoint \<Rightarrow> lex_case" where
  "mozjs_lex_89 eof la = (None,
      if la = CH_BACKSLASH then ADVANCE 95 else
      if mozjs_starts_identifier la then ADVANCE 290 else END_STATE)"

definition mozjs_lex_90 :: "bool \<Rightarrow> codepoint \<Rightarrow> lex_case" where
  "mozjs_lex_90 eof la = (None,
      if la = CH_e then ADVANCE 92 else END_STATE)"

definition mozjs_lex_91 :: "bool \<Rightarrow> codepoint \<Rightarrow> lex_case" where
  "mozjs_lex_91 eof la = (None,
      if la = CH_g then ADVANCE 90 else
      if (CH_TAB \<le> la \<and> la \<le> CH_CR) \<or> la = CH_SPACE then ADVANCE 91 else
        END_STATE)"

definition mozjs_lex_92 :: "bool \<Rightarrow> codepoint \<Rightarrow> lex_case" where
  "mozjs_lex_92 eof la = (None,
      if la = CH_t then ADVANCE 11 else END_STATE)"

definition mozjs_lex_93 :: "bool \<Rightarrow> codepoint \<Rightarrow> lex_case" where
  "mozjs_lex_93 eof la = (None,
      if la = CH_u then ADVANCE 98 else
      if la = CH_x then ADVANCE 124 else
      if la = CH_CR \<or> la = CH_QMARK then ADVANCE 257 else
      if CH_0 \<le> la \<and> la \<le> CH_7 then ADVANCE 259 else
      if la \<noteq> 0 then ADVANCE 255 else END_STATE)"

definition mozjs_lex_94 :: "bool \<Rightarrow> codepoint \<Rightarrow> lex_case" where
  "mozjs_lex_94 eof la = (None,
      if la = CH_u then ADVANCE 99 else END_STATE)"

definition mozjs_lex_95 :: "bool \<Rightarrow> codepoint \<Rightarrow> lex_case" where
  "mozjs_lex_95 eof la = (None,
      if la = CH_u then ADVANCE 100 else END_STATE)"

definition mozjs_lex_96 :: "bool \<Rightarrow> codepoint \<Rightarrow> lex_case" where
  "mozjs_lex_96 eof la = (None,
      if la = CH_u then ADVANCE 101 else
      if la = CH_x then ADVANCE 124 else
      if la = CH_CR \<or> la = CH_QMARK then ADVANCE 257 else
      if CH_0 \<le> la \<and> la \<le> CH_7 then ADVANCE 259 else
      if la \<noteq> 0 then ADVANCE 255 else END_STATE)"

definition mozjs_lex_97 :: "bool \<Rightarrow> codepoint \<Rightarrow> lex_case" where
  "mozjs_lex_97 eof la = (None,
      if la = CH_LBRACE then ADVANCE 265 else END_STATE)"

definition mozjs_lex_98 :: "bool \<Rightarrow> codepoint \<Rightarrow> lex_case" where
  "mozjs_lex_98 eof la = (None,
      if la = CH_LBRACE then ADVANCE 117 else
      if (CH_0 \<le> la \<and> la \<le> CH_9) \<or> (CH_A \<le> la \<and> la \<le> CH_F) \<or>
        (CH_a \<le> la \<and> la \<le> CH_f) then ADVANCE 129 else END_STATE)"

definition mozjs_lex_99 :: "bool \<Rightarrow> codepoint \<Rightarrow> lex_case" where
  "mozjs_lex_99 eof la = (None,
      if la = CH_LBRACE then ADVANCE 122 else
      if (CH_0 \<le> la \<and> la \<le> CH_9) \<or> (CH_A \<le> la \<and> la \<le> CH_F) \<or>
        (CH_a \<le> la \<and> la \<le> CH_f) then ADVANCE 130 else END_STATE)"

definition mozjs_lex_100 :: "bool \<Rightarrow> codepoint \<Rightarrow> lex_case" where
  "mozjs_lex_100 eof la = (None,
      if la = CH_LBRACE then ADVANCE 123 else
      if (CH_0 \<le> la \<and> la \<le> CH_9) \<or> (CH_A \<le> la \<and> la \<le> CH_F) \<or>
        (CH_a \<le> la \<and> la \<le> CH_f) then ADVANCE 131 else END_STATE)"

definition mozjs_lex_101 :: "bool \<Rightarrow> codepoint \<Rightarrow> lex_case" where
  "mozjs_lex_101 eof la = (None,
      if la = CH_LBRACE then ADVANCE 125 else
      if (CH_0 \<le> la \<and> la \<le> CH_9) \<or> (CH_A \<le> la \<and> la \<le> CH_F) \<or>
        (CH_a \<le> la \<and> la \<le> CH_f) then ADVANCE 121 else END_STATE)"

definition mozjs_lex_102 :: "bool \<Rightarrow> codepoint \<Rightarrow> lex_case" where
  "mozjs_lex_102 eof la = (None,
      if la = CH_RBRACE then ADVANCE 288 else
      if (CH_0 \<le> la \<and> la \<le> CH_9) \<or> (CH_A \<le> la \<and> la \<le> CH_F) \<or>
        (CH_a \<le> la \<and> la \<le> CH_f) then ADVANCE 102 else END_STATE)"

definition mozjs_lex_103 :: "bool \<Rightarrow> codepoint \<Rightarrow> lex_case" where
  "mozjs_lex_103 eof la = (None,
      if la = CH_RBRACE then ADVANCE 255 else
      if (CH_0 \<le> la \<and> la \<le> CH_9) \<or> (CH_A \<le> la \<and> la \<le> CH_F) \<or>
        (CH_a \<le> la \<and> la \<le> CH_f) then ADVANCE 103 else END_STATE)"

definition mozjs_lex_104 :: "bool \<Rightarrow> codepoint \<Rightarrow> lex_case" where
  "mozjs_lex_104 eof la = (None,
      if la = CH_RBRACE then ADVANCE 256 else
      if (CH_0 \<le> la \<and> la \<le> CH_9) \<or> (CH_A \<le> la \<and> la \<le> CH_F) \<or>
        (CH_a \<le> la \<and> la \<le> CH_f) then ADVANCE 104 else END_STATE)"

definition mozjs_lex_105 :: "bool \<Rightarrow> codepoint \<Rightarrow> lex_case" where
  "mozjs_lex_105 eof la = (None,
      if la = CH_RBRACE then ADVANCE 290 else
      if (CH_0 \<le> la \<and> la \<le> CH_9) \<or> (CH_A \<le> la \<and> la \<le> CH_F) \<or>
        (CH_a \<le> la \<and> la \<le> CH_f) then ADVANCE 105 else END_STATE)"

definition mozjs_lex_106 :: "bool \<Rightarrow> codepoint \<Rightarrow> lex_case" where
  "mozjs_lex_106 eof la = (None,
      if la = CH_PLUS \<or> la = CH_MINUS then ADVANCE 113 else
      if CH_0 \<le> la \<and> la \<le> CH_9 then ADVANCE 278 else END_STATE)"

definition mozjs_lex_107 :: "bool \<Rightarrow> codepoint \<Rightarrow> lex_case" where
  "mozjs_lex_107 eof la = (None,
      if la = CH_X \<or> la = CH_x then ADVANCE 120 else
      if CH_0 \<le> la \<and> la \<le> CH_9 then ADVANCE 51 else END_STATE)"

definition mozjs_lex_108 :: "bool \<Rightarrow> codepoint \<Rightarrow> lex_case" where
  "mozjs_lex_108 eof la = (None,
      if la = CH_0 \<or> la = CH_1 then ADVANCE 274 else END_STATE)"

definition mozjs_lex_109 :: "bool \<Rightarrow> codepoint \<Rightarrow> lex_case" where
  "mozjs_lex_109 eof la = (None,
      if CH_0 \<le> la \<and> la \<le> CH_7 then ADVANCE 275 else END_STATE)"

definition mozjs_lex_110 :: "bool \<Rightarrow> codepoint \<Rightarrow> lex_case" where
  "mozjs_lex_110 eof la = (None,
      if CH_0 \<le> la \<and> la \<le> CH_9 then ADVANCE 272 else END_STATE)"

definition mozjs_lex_111 :: "bool \<Rightarrow> codepoint \<Rightarrow> lex_case" where
  "mozjs_lex_111 eof la = (None,
      if CH_0 \<le> la \<and> la \<le> CH_9 then ADVANCE 277 else END_STATE)"

definition mozjs_lex_112 :: "bool \<Rightarrow> codepoint \<Rightarrow> lex_case" where
  "mozjs_lex_112 eof la = (None,
      if CH_0 \<le> la \<and> la \<le> CH_9 then ADVANCE 273 else END_STATE)"

definition mozjs_lex_113 :: "bool \<Rightarrow> codepoint \<Rightarrow> lex_case" where
  "mozjs_lex_113 eof la = (None,
      if CH_0 \<le> la \<and> la \<le> CH_9 then ADVANCE 278 else END_STATE)"

definition mozjs_lex_114 :: "bool \<Rightarrow> codepoint \<Rightarrow> lex_case" where
  "mozjs_lex_114 eof la = (None,
      if (CH_0 \<le> la \<and> la \<le> CH_9) \<or> (CH_A \<le> la \<and> la \<le> CH_F) \<or>
        (CH_a \<le> la \<and> la \<le> CH_f) then ADVANCE 288 else END_STATE)"

definition mozjs_lex_115 :: "bool \<Rightarrow> codepoint \<Rightarrow> lex_case" where
  "mozjs_lex_115 eof la = (None,
      if (CH_0 \<le> la \<and> la \<le> CH_9) \<or> (CH_A \<le> la \<and> la \<le> CH_F) \<or>
        (CH_a \<le> la \<and> la \<le> CH_f) then ADVANCE 255 else END_STATE)"

definition mozjs_lex_116 :: "bool \<Rightarrow> codepoint \<Rightarrow> lex_case" where
  "mozjs_lex_116 eof la = (None,
      if (CH_0 \<le> la \<and> la \<le> CH_9) \<or> (CH_A \<le> la \<and> la \<le> CH_F) \<or>
        (CH_a \<le> la \<and> la \<le> CH_f) then ADVANCE 276 else END_STATE)"

definition mozjs_lex_117 :: "bool \<Rightarrow> codepoint \<Rightarrow> lex_case" where
  "mozjs_lex_117 eof la = (None,
      if (CH_0 \<le> la \<and> la \<le> CH_9) \<or> (CH_A \<le> la \<and> la \<le> CH_F) \<or>
        (CH_a \<le> la \<and> la \<le> CH_f) then ADVANCE 104 else END_STATE)"

definition mozjs_lex_118 :: "bool \<Rightarrow> codepoint \<Rightarrow> lex_case" where
  "mozjs_lex_118 eof la = (None,
      if (CH_0 \<le> la \<and> la \<le> CH_9) \<or> (CH_A \<le> la \<and> la \<le> CH_F) \<or>
        (CH_a \<le> la \<and> la \<le> CH_f) then ADVANCE 256 else END_STATE)"

definition mozjs_lex_119 :: "bool \<Rightarrow> codepoint \<Rightarrow> lex_case" where
  "mozjs_lex_119 eof la = (None,
      if (CH_0 \<le> la \<and> la \<le> CH_9) \<or> (CH_A \<le> la \<and> la \<le> CH_F) \<or>
        (CH_a \<le> la \<and> la \<le> CH_f) then ADVANCE 290 else END_STATE)"

definition mozjs_lex_120 :: "bool \<Rightarrow> codepoint \<Rightarrow> lex_case" where
  "mozjs_lex_120 eof la = (None,
      if (CH_0 \<le> la \<and> la \<le> CH_9) \<or> (CH_A \<le> la \<and> la \<le> CH_F) \<or>
        (CH_a \<le> la \<and> la \<le> CH_f) then ADVANCE 56 else END_STATE)"

definition mozjs_lex_121 :: "bool \<Rightarrow> codepoint \<Rightarrow> lex_case" where
  "mozjs_lex_121 eof la = (None,
      if (CH_0 \<le> la \<and> la \<le> CH_9) \<or> (CH_A \<le> la \<and> la \<le> CH_F) \<or>
        (CH_a \<le> la \<and> la \<le> CH_f) then ADVANCE 124 else END_STATE)"

definition mozjs_lex_122 :: "bool \<Rightarrow> codepoint \<Rightarrow> lex_case" where
  "mozjs_lex_122 eof la = (None,
      if (CH_0 \<le> la \<and> la \<le> CH_9) \<or> (CH_A \<le> la \<and> la \<le> CH_F) \<or>
        (CH_a \<le> la \<and> la \<le> CH_f) then ADVANCE 102 else END_STATE)"

definition mozjs_lex_123 :: "bool \<Rightarrow> codepoint \<Rightarrow> lex_case" where
  "mozjs_lex_123 eof la = (None,
      if (CH_0 \<le> la \<and> la \<le> CH_9) \<or> (CH_A \<le> la \<and> la \<le> CH_F) \<or>
        (CH_a \<le> la \<and> la \<le> CH_f) then ADVANCE 105 else END_STATE)"

definition mozjs_lex_124 :: "bool \<Rightarrow> codepoint \<Rightarrow> lex_case" where
  "mozjs_lex_124 eof la = (None,
      if (CH_0 \<le> la \<and> la \<le> CH_9) \<or> (CH_A \<le> la \<and> la \<le> CH_F) \<or>
        (CH_a \<le> la \<and> la \<le> CH_f) then ADVANCE 115 else END_STATE)"

definition mozjs_lex_125 :: "bool \<Rightarrow> codepoint \<Rightarrow> lex_case" where
  "mozjs_lex_125 eof la = (None,
      if (CH_0 \<le> la \<and> la \<le> CH_9) \<or> (CH_A \<le> la \<and> la \<le> CH_F) \<or>
        (CH_a \<le> la \<and> la \<le> CH_f) then ADVANCE 103 else END_STATE)"

definition mozjs_lex_126 :: "bool \<Rightarrow> codepoint \<Rightarrow> lex_case" where
  "mozjs_lex_126 eof la = (None,
      if (CH_0 \<le> la \<and> la \<le> CH_9) \<or> (CH_A \<le> la \<and> la \<le> CH_F) \<or>
        (CH_a \<le> la \<and> la \<le> CH_f) then ADVANCE 118 else END_STATE)"

definition mozjs_lex_127 :: "bool \<Rightarrow> codepoint \<Rightarrow> lex_case" where
  "mozjs_lex_127 eof la = (None,
      if (CH_0 \<le> la \<and> la \<le> CH_9) \<or> (CH_A \<le> la \<and> la \<le> CH_F) \<or>
        (CH_a \<le> la \<and> la \<le> CH_f) then ADVANCE 114 else END_STATE)"

definition mozjs_lex_128 :: "bool \<Rightarrow> codepoint \<Rightarrow> lex_case" where
  "mozjs_lex_128 eof la = (None,
      if (CH_0 \<le> la \<and> la \<le> CH_9) \<or> (CH_A \<le> la \<and> la \<le> CH_F) \<or>
        (CH_a \<le> la \<and> la \<le> CH_f) then ADVANCE 119 else END_STATE)"

definition mozjs_lex_129 :: "bool \<Rightarrow> codepoint \<Rightarrow> lex_case" where
  "mozjs_lex_129 eof la = (None,
      if (CH_0 \<le> la \<and> la \<le> CH_9) \<or> (CH_A \<le> la \<and> la \<le> CH_F) \<or>
        (CH_a \<le> la \<and> la \<le> CH_f) then ADVANCE 126 else END_STATE)"

definition mozjs_lex_130 :: "bool \<Rightarrow> codepoint \<Rightarrow> lex_case" where
  "mozjs_lex_130 eof la = (None,
      if (CH_0 \<le> la \<and> la \<le> CH_9) \<or> (CH_A \<le> la \<and> la \<le> CH_F) \<or>
        (CH_a \<le> la \<and> la \<le> CH_f) then ADVANCE 127 else END_STATE)"

definition mozjs_lex_131 :: "bool \<Rightarrow> codepoint \<Rightarrow> lex_case" where
  "mozjs_lex_131 eof la = (None,
      if (CH_0 \<le> la \<and> la \<le> CH_9) \<or> (CH_A \<le> la \<and> la \<le> CH_F) \<or>
        (CH_a \<le> la \<and> la \<le> CH_f) then ADVANCE 128 else END_STATE)"

definition mozjs_lex_132 :: "bool \<Rightarrow> codepoint \<Rightarrow> lex_case" where
  "mozjs_lex_132 eof la = (None,
      if la \<noteq> 0 \<and> la \<noteq> CH_HASH \<and> (la < CH_A \<or> CH_Z < la) \<and> (la <
        CH_a \<or> CH_z < la) then ADVANCE 176 else END_STATE)"

definition mozjs_lex_133 :: "bool \<Rightarrow> codepoint \<Rightarrow> lex_case" where
  "mozjs_lex_133 eof la = (None,
      if la \<noteq> 0 \<and> la \<noteq> CH_HASH \<and> (la < CH_A \<or> CH_Z < la) \<and> (la <
        CH_a \<or> CH_z < la) then ADVANCE 182 else END_STATE)"

definition mozjs_lex_134 :: "bool \<Rightarrow> codepoint \<Rightarrow> lex_case" where
  "mozjs_lex_134 eof la = (None,
      if la \<noteq> 0 \<and> la \<noteq> CH_LF then ADVANCE 88 else END_STATE)"

definition mozjs_lex_135 :: "bool \<Rightarrow> codepoint \<Rightarrow> lex_case" where
  "mozjs_lex_135 eof la = (None,
      if la \<noteq> 0 \<and> la \<noteq> CH_LF then ADVANCE 268 else END_STATE)"

definition mozjs_lex_136 :: "bool \<Rightarrow> codepoint \<Rightarrow> lex_case" where
  "mozjs_lex_136 eof la = (None,
      if eof then ADVANCE 139 else
      case ADVANCE_MAP [(CH_BANG, 239), (CH_DQUOTE, 172), (CH_HASH, 1), (CH_DOLLAR, 286),
        (CH_PERCENT, 227), (CH_AMP, 214), (CH_QUOTE, 173), (CH_LPAREN, 147), (CH_RPAREN, 149),
        (CH_STAR, 142), (CH_PLUS, 221), (CH_COMMA, 145), (CH_MINUS, 223), (CH_DOT, 168),
        (CH_SLASH, 225), (CH_0, 271), (CH_COLON, 150), (CH_SEMICOLON, 148), (CH_LT, 160),
        (CH_EQUALS, 153), (CH_GT, 164), (CH_QMARK, 41), (CH_AT, 291), (CH_LBRACKET, 155),
        (CH_BACKSLASH, 94), (CH_RBRACKET, 156), (CH_CARET, 217), (CH_BACKTICK, 264), (CH_s, 284),
        (CH_LBRACE, 144), (CH_BAR, 218), (CH_RBRACE, 146), (CH_TILDE, 240)] la of Some st
        \<Rightarrow> ADVANCE st | None \<Rightarrow> (
      if CH_1 \<le> la \<and> la \<le> CH_9 then ADVANCE 272 else
      if mozjs_in_extras la then SKIP 136 else
      if la > CH_AT then ADVANCE 288 else END_STATE))"

definition mozjs_lex_137 :: "bool \<Rightarrow> codepoint \<Rightarrow> lex_case" where
  "mozjs_lex_137 eof la = (None,
      if eof then ADVANCE 139 else
      case ADVANCE_MAP [(CH_BANG, 239), (CH_DQUOTE, 172), (CH_HASH, 2), (CH_PERCENT, 226),
        (CH_AMP, 215), (CH_QUOTE, 173), (CH_LPAREN, 147), (CH_STAR, 143), (CH_PLUS, 220),
        (CH_COMMA, 145), (CH_MINUS, 222), (CH_DOT, 169), (CH_SLASH, 224), (CH_0, 271),
        (CH_SEMICOLON, 148), (CH_LT, 162), (CH_EQUALS, 152), (CH_GT, 165), (CH_QMARK, 42),
        (CH_AT, 291), (CH_LBRACKET, 155), (CH_BACKSLASH, 94), (CH_CARET, 216), (CH_BACKTICK,
        264), (CH_LBRACE, 144), (CH_BAR, 219), (CH_RBRACE, 146), (CH_TILDE, 240)] la of Some st
        \<Rightarrow> ADVANCE st | None \<Rightarrow> (
      if CH_1 \<le> la \<and> la \<le> CH_9 then ADVANCE 272 else
      if mozjs_in_extras la then SKIP 137 else
      if la > CH_HASH \<and> (la < CH_PERCENT \<or> CH_AT < la) \<and> (la < CH_LBRACKET \<or>
        CH_CARET < la) then ADVANCE 288 else END_STATE))"

definition mozjs_lex_138 :: "bool \<Rightarrow> codepoint \<Rightarrow> lex_case" where
  "mozjs_lex_138 eof la = (None,
      if eof then ADVANCE 139 else
      case ADVANCE_MAP [(CH_BANG, 238), (CH_DQUOTE, 172), (CH_HASH, 1), (CH_QUOTE, 173),
        (CH_LPAREN, 147), (CH_RPAREN, 149), (CH_STAR, 141), (CH_PLUS, 220), (CH_COMMA, 145),
        (CH_MINUS, 222), (CH_DOT, 169), (CH_SLASH, 224), (CH_0, 271), (CH_COLON, 150),
        (CH_SEMICOLON, 148), (CH_LT, 158), (CH_EQUALS, 154), (CH_GT, 163), (CH_QMARK, 40),
        (CH_AT, 291), (CH_LBRACKET, 155), (CH_BACKSLASH, 94), (CH_RBRACKET, 156), (CH_BACKTICK,
        264), (CH_LBRACE, 144), (CH_RBRACE, 146), (CH_TILDE, 240)] la of Some st \<Rightarrow>
        ADVANCE st | None \<Rightarrow> (
      if CH_1 \<le> la \<and> la \<le> CH_9 then ADVANCE 272 else
      if mozjs_in_extras la then SKIP 138 else
      if la > CH_HASH \<and> (la < CH_PERCENT \<or> CH_AT < la) \<and> (la < CH_LBRACKET \<or>
        CH_CARET < la) \<and> (la < CH_LBRACE \<or> CH_TILDE < la) then ADVANCE 288 else
        END_STATE))"

definition mozjs_lex_139 :: "bool \<Rightarrow> codepoint \<Rightarrow> lex_case" where
  "mozjs_lex_139 eof la = (Some ts_builtin_sym_end, END_STATE)"

definition mozjs_lex_140 :: "bool \<Rightarrow> codepoint \<Rightarrow> lex_case" where
  "mozjs_lex_140 eof la = (Some mozjs_sym_hash_bang_line,
      if la = CH_LF then ADVANCE 293 else
      if la \<noteq> 0 then ADVANCE 140 else END_STATE)"

definition mozjs_lex_141 :: "bool \<Rightarrow> codepoint \<Rightarrow> lex_case" where
  "mozjs_lex_141 eof la = (Some mozjs_anon_sym_STAR, END_STATE)"

definition mozjs_lex_142 :: "bool \<Rightarrow> codepoint \<Rightarrow> lex_case" where
  "mozjs_lex_142 eof la = (Some mozjs_anon_sym_STAR,
      if la = CH_STAR then ADVANCE 229 else
      if la = CH_EQUALS then ADVANCE 190 else END_STATE)"

definition mozjs_lex_143 :: "bool \<Rightarrow> codepoint \<Rightarrow> lex_case" where
  "mozjs_lex_143 eof la = (Some mozjs_anon_sym_STAR,
      if la = CH_STAR then ADVANCE 228 else END_STATE)"

definition mozjs_lex_144 :: "bool \<Rightarrow> codepoint \<Rightarrow> lex_case" where
  "mozjs_lex_144 eof la = (Some mozjs_anon_sym_LBRACE, END_STATE)"

definition mozjs_lex_145 :: "bool \<Rightarrow> codepoint \<Rightarrow> lex_case" where
  "mozjs_lex_145 eof la = (Some mozjs_anon_sym_COMMA, END_STATE)"

definition mozjs_lex_146 :: "bool \<Rightarrow> codepoint \<Rightarrow> lex_case" where
  "mozjs_lex_146 eof la = (Some mozjs_anon_sym_RBRACE, END_STATE)"

definition mozjs_lex_147 :: "bool \<Rightarrow> codepoint \<Rightarrow> lex_case" where
  "mozjs_lex_147 eof la = (Some mozjs_anon_sym_LPAREN, END_STATE)"

definition mozjs_lex_148 :: "bool \<Rightarrow> codepoint \<Rightarrow> lex_case" where
  "mozjs_lex_148 eof la = (Some mozjs_anon_sym_SEMI, END_STATE)"

definition mozjs_lex_149 :: "bool \<Rightarrow> codepoint \<Rightarrow> lex_case" where
  "mozjs_lex_149 eof la = (Some mozjs_anon_sym_RPAREN, END_STATE)"

definition mozjs_lex_150 :: "bool \<Rightarrow> codepoint \<Rightarrow> lex_case" where
  "mozjs_lex_150 eof la = (Some mozjs_anon_sym_COLON, END_STATE)"

definition mozjs_lex_151 :: "bool \<Rightarrow> codepoint \<Rightarrow> lex_case" where
  "mozjs_lex_151 eof la = (Some mozjs_anon_sym_EQ, END_STATE)"

definition mozjs_lex_152 :: "bool \<Rightarrow> codepoint \<Rightarrow> lex_case" where
  "mozjs_lex_152 eof la = (Some mozjs_anon_sym_EQ,
      if la = CH_EQUALS then ADVANCE 231 else END_STATE)"

definition mozjs_lex_153 :: "bool \<Rightarrow> codepoint \<Rightarrow> lex_case" where
  "mozjs_lex_153 eof la = (Some mozjs_anon_sym_EQ,
      if la = CH_EQUALS then ADVANCE 231 else
      if la = CH_GT then ADVANCE 186 else END_STATE)"

definition mozjs_lex_154 :: "bool \<Rightarrow> codepoint \<Rightarrow> lex_case" where
  "mozjs_lex_154 eof la = (Some mozjs_anon_sym_EQ,
      if la = CH_GT then ADVANCE 186 else END_STATE)"

definition mozjs_lex_155 :: "bool \<Rightarrow> codepoint \<Rightarrow> lex_case" where
  "mozjs_lex_155 eof la = (Some mozjs_anon_sym_LBRACK, END_STATE)"

definition mozjs_lex_156 :: "bool \<Rightarrow> codepoint \<Rightarrow> lex_case" where
  "mozjs_lex_156 eof la = (Some mozjs_anon_sym_RBRACK, END_STATE)"

definition mozjs_lex_157 :: "bool \<Rightarrow> codepoint \<Rightarrow> lex_case" where
  "mozjs_lex_157 eof la = (Some mozjs_sym_html_character_reference, END_STATE)"

definition mozjs_lex_158 :: "bool \<Rightarrow> codepoint \<Rightarrow> lex_case" where
  "mozjs_lex_158 eof la = (Some mozjs_anon_sym_LT, END_STATE)"

definition mozjs_lex_159 :: "bool \<Rightarrow> codepoint \<Rightarrow> lex_case" where
  "mozjs_lex_159 eof la = (Some mozjs_anon_sym_LT,
      if la = CH_SLASH then ADVANCE 170 else END_STATE)"

definition mozjs_lex_160 :: "bool \<Rightarrow> codepoint \<Rightarrow> lex_case" where
  "mozjs_lex_160 eof la = (Some mozjs_anon_sym_LT,
      if la = CH_SLASH then ADVANCE 170 else
      if la = CH_LT then ADVANCE 213 else
      if la = CH_EQUALS then ADVANCE 230 else END_STATE)"

definition mozjs_lex_161 :: "bool \<Rightarrow> codepoint \<Rightarrow> lex_case" where
  "mozjs_lex_161 eof la = (Some mozjs_anon_sym_LT,
      if la = CH_LT then ADVANCE 213 else
      if la = CH_EQUALS then ADVANCE 230 else END_STATE)"

definition mozjs_lex_162 :: "bool \<Rightarrow> codepoint \<Rightarrow> lex_case" where
  "mozjs_lex_162 eof la = (Some mozjs_anon_sym_LT,
      if la = CH_LT then ADVANCE 212 else
      if la = CH_EQUALS then ADVANCE 230 else END_STATE)"

definition mozjs_lex_163 :: "bool \<Rightarrow> codepoint \<Rightarrow> lex_case" where
  "mozjs_lex_163 eof la = (Some mozjs_anon_sym_GT, END_STATE)"

definition mozjs_lex_164 :: "bool \<Rightarrow> codepoint \<Rightarrow> lex_case" where
  "mozjs_lex_164 eof la = (Some mozjs_anon_sym_GT,
      if la = CH_EQUALS then ADVANCE 235 else
      if la = CH_GT then ADVANCE 208 else END_STATE)"

definition mozjs_lex_165 :: "bool \<Rightarrow> codepoint \<Rightarrow> lex_case" where
  "mozjs_lex_165 eof la = (Some mozjs_anon_sym_GT,
      if la = CH_EQUALS then ADVANCE 235 else
      if la = CH_GT then ADVANCE 209 else END_STATE)"

definition mozjs_lex_166 :: "bool \<Rightarrow> codepoint \<Rightarrow> lex_case" where
  "mozjs_lex_166 eof la = (Some mozjs_sym_jsx_identifier,
      if la = CH_DOLLAR \<or> la = CH_MINUS \<or> (CH_0 \<le> la \<and> la \<le> CH_9) \<or>
        (CH_A \<le> la \<and> la \<le> CH_Z) \<or> la = CH_UNDERSCORE \<or> (CH_a \<le> la \<and>
        la \<le> CH_z) then ADVANCE 166 else END_STATE)"

definition mozjs_lex_167 :: "bool \<Rightarrow> codepoint \<Rightarrow> lex_case" where
  "mozjs_lex_167 eof la = (Some mozjs_anon_sym_DOT, END_STATE)"

definition mozjs_lex_168 :: "bool \<Rightarrow> codepoint \<Rightarrow> lex_case" where
  "mozjs_lex_168 eof la = (Some mozjs_anon_sym_DOT,
      if la = CH_DOT then ADVANCE 43 else
      if CH_0 \<le> la \<and> la \<le> CH_9 then ADVANCE 277 else END_STATE)"

definition mozjs_lex_169 :: "bool \<Rightarrow> codepoint \<Rightarrow> lex_case" where
  "mozjs_lex_169 eof la = (Some mozjs_anon_sym_DOT,
      if CH_0 \<le> la \<and> la \<le> CH_9 then ADVANCE 277 else END_STATE)"

definition mozjs_lex_170 :: "bool \<Rightarrow> codepoint \<Rightarrow> lex_case" where
  "mozjs_lex_170 eof la = (Some mozjs_anon_sym_LT_SLASH, END_STATE)"

definition mozjs_lex_171 :: "bool \<Rightarrow> codepoint \<Rightarrow> lex_case" where
  "mozjs_lex_171 eof la = (Some mozjs_anon_sym_SLASH_GT, END_STATE)"

definition mozjs_lex_172 :: "bool \<Rightarrow> codepoint \<Rightarrow> lex_case" where
  "mozjs_lex_172 eof la = (Some mozjs_anon_sym_DQUOTE, END_STATE)"

definition mozjs_lex_173 :: "bool \<Rightarrow> codepoint \<Rightarrow> lex_case" where
  "mozjs_lex_173 eof la = (Some mozjs_anon_sym_SQUOTE, END_STATE)"

definition mozjs_lex_174 :: "bool \<Rightarrow> codepoint \<Rightarrow> lex_case" where
  "mozjs_lex_174 eof la = (Some mozjs_sym_unescaped_double_jsx_string_fragment,
      if la = CH_AMP then ADVANCE 26 else
      if la = CH_SLASH then ADVANCE 175 else
      if mozjs_in_extras la then ADVANCE 174 else
      if la \<noteq> 0 \<and> la \<noteq> CH_DQUOTE then ADVANCE 176 else END_STATE)"

definition mozjs_lex_175 :: "bool \<Rightarrow> codepoint \<Rightarrow> lex_case" where
  "mozjs_lex_175 eof la = (Some mozjs_sym_unescaped_double_jsx_string_fragment,
      if la = CH_AMP then ADVANCE 132 else
      if la = CH_STAR then ADVANCE 178 else
      if la = CH_SLASH then ADVANCE 179 else
      if la \<noteq> 0 \<and> la \<noteq> CH_DQUOTE then ADVANCE 176 else END_STATE)"

definition mozjs_lex_176 :: "bool \<Rightarrow> codepoint \<Rightarrow> lex_case" where
  "mozjs_lex_176 eof la = (Some mozjs_sym_unescaped_double_jsx_string_fragment,
      if la = CH_AMP then ADVANCE 132 else
      if la \<noteq> 0 \<and> la \<noteq> CH_DQUOTE then ADVANCE 176 else END_STATE)"

definition mozjs_lex_177 :: "bool \<Rightarrow> codepoint \<Rightarrow> lex_case" where
  "mozjs_lex_177 eof la = (Some mozjs_sym_unescaped_double_jsx_string_fragment,
      if la = CH_AMP then ADVANCE 37 else
      if la = CH_STAR then ADVANCE 177 else
      if la = CH_SLASH then ADVANCE 176 else
      if la \<noteq> 0 \<and> la \<noteq> CH_DQUOTE then ADVANCE 178 else END_STATE)"

definition mozjs_lex_178 :: "bool \<Rightarrow> codepoint \<Rightarrow> lex_case" where
  "mozjs_lex_178 eof la = (Some mozjs_sym_unescaped_double_jsx_string_fragment,
      if la = CH_AMP then ADVANCE 37 else
      if la = CH_STAR then ADVANCE 177 else
      if la \<noteq> 0 \<and> la \<noteq> CH_DQUOTE then ADVANCE 178 else END_STATE)"

definition mozjs_lex_179 :: "bool \<Rightarrow> codepoint \<Rightarrow> lex_case" where
  "mozjs_lex_179 eof la = (Some mozjs_sym_unescaped_double_jsx_string_fragment,
      if la = CH_AMP then ADVANCE 261 else
      if la = CH_LF \<or> la = CH_CR \<or> la = 8232 \<or> la = 8233 then ADVANCE 176 else
      if la \<noteq> 0 \<and> la \<noteq> CH_DQUOTE then ADVANCE 179 else END_STATE)"

definition mozjs_lex_180 :: "bool \<Rightarrow> codepoint \<Rightarrow> lex_case" where
  "mozjs_lex_180 eof la = (Some mozjs_sym_unescaped_single_jsx_string_fragment,
      if la = CH_AMP then ADVANCE 27 else
      if la = CH_SLASH then ADVANCE 181 else
      if mozjs_in_extras la then ADVANCE 180 else
      if la \<noteq> 0 \<and> la \<noteq> CH_AMP \<and> la \<noteq> CH_QUOTE then ADVANCE 182
        else END_STATE)"

definition mozjs_lex_181 :: "bool \<Rightarrow> codepoint \<Rightarrow> lex_case" where
  "mozjs_lex_181 eof la = (Some mozjs_sym_unescaped_single_jsx_string_fragment,
      if la = CH_AMP then ADVANCE 133 else
      if la = CH_STAR then ADVANCE 184 else
      if la = CH_SLASH then ADVANCE 185 else
      if la \<noteq> 0 \<and> la \<noteq> CH_AMP \<and> la \<noteq> CH_QUOTE then ADVANCE 182
        else END_STATE)"

definition mozjs_lex_182 :: "bool \<Rightarrow> codepoint \<Rightarrow> lex_case" where
  "mozjs_lex_182 eof la = (Some mozjs_sym_unescaped_single_jsx_string_fragment,
      if la = CH_AMP then ADVANCE 133 else
      if la \<noteq> 0 \<and> la \<noteq> CH_AMP \<and> la \<noteq> CH_QUOTE then ADVANCE 182
        else END_STATE)"

definition mozjs_lex_183 :: "bool \<Rightarrow> codepoint \<Rightarrow> lex_case" where
  "mozjs_lex_183 eof la = (Some mozjs_sym_unescaped_single_jsx_string_fragment,
      if la = CH_AMP then ADVANCE 38 else
      if la = CH_STAR then ADVANCE 183 else
      if la = CH_SLASH then ADVANCE 182 else
      if la \<noteq> 0 \<and> la \<noteq> CH_AMP \<and> la \<noteq> CH_QUOTE then ADVANCE 184
        else END_STATE)"

definition mozjs_lex_184 :: "bool \<Rightarrow> codepoint \<Rightarrow> lex_case" where
  "mozjs_lex_184 eof la = (Some mozjs_sym_unescaped_single_jsx_string_fragment,
      if la = CH_AMP then ADVANCE 38 else
      if la = CH_STAR then ADVANCE 183 else
      if la \<noteq> 0 \<and> la \<noteq> CH_AMP \<and> la \<noteq> CH_QUOTE then ADVANCE 184
        else END_STATE)"

definition mozjs_lex_185 :: "bool \<Rightarrow> codepoint \<Rightarrow> lex_case" where
  "mozjs_lex_185 eof la = (Some mozjs_sym_unescaped_single_jsx_string_fragment,
      if la = CH_AMP then ADVANCE 262 else
      if la = CH_LF \<or> la = CH_CR \<or> la = 8232 \<or> la = 8233 then ADVANCE 182 else
      if la \<noteq> 0 \<and> la \<noteq> CH_AMP \<and> la \<noteq> CH_QUOTE then ADVANCE 185
        else END_STATE)"

definition mozjs_lex_186 :: "bool \<Rightarrow> codepoint \<Rightarrow> lex_case" where
  "mozjs_lex_186 eof la = (Some mozjs_anon_sym_EQ_GT, END_STATE)"

definition mozjs_lex_187 :: "bool \<Rightarrow> codepoint \<Rightarrow> lex_case" where
  "mozjs_lex_187 eof la = (Some mozjs_sym_optional_chain, END_STATE)"

definition mozjs_lex_188 :: "bool \<Rightarrow> codepoint \<Rightarrow> lex_case" where
  "mozjs_lex_188 eof la = (Some mozjs_anon_sym_PLUS_EQ, END_STATE)"

definition mozjs_lex_189 :: "bool \<Rightarrow> codepoint \<Rightarrow> lex_case" where
  "mozjs_lex_189 eof la = (Some mozjs_anon_sym_DASH_EQ, END_STATE)"

definition mozjs_lex_190 :: "bool \<Rightarrow> codepoint \<Rightarrow> lex_case" where
  "mozjs_lex_190 eof la = (Some mozjs_anon_sym_STAR_EQ, END_STATE)"

definition mozjs_lex_191 :: "bool \<Rightarrow> codepoint \<Rightarrow> lex_case" where
  "mozjs_lex_191 eof la = (Some mozjs_anon_sym_SLASH_EQ, END_STATE)"

definition mozjs_lex_192 :: "bool \<Rightarrow> codepoint \<Rightarrow> lex_case" where
  "mozjs_lex_192 eof la = (Some mozjs_anon_sym_PERCENT_EQ, END_STATE)"

definition mozjs_lex_193 :: "bool \<Rightarrow> codepoint \<Rightarrow> lex_case" where
  "mozjs_lex_193 eof la = (Some mozjs_anon_sym_CARET_EQ, END_STATE)"

definition mozjs_lex_194 :: "bool \<Rightarrow> codepoint \<Rightarrow> lex_case" where
  "mozjs_lex_194 eof la = (Some mozjs_anon_sym_AMP_EQ, END_STATE)"

definition mozjs_lex_195 :: "bool \<Rightarrow> codepoint \<Rightarrow> lex_case" where
  "mozjs_lex_195 eof la = (Some mozjs_anon_sym_PIPE_EQ, END_STATE)"

definition mozjs_lex_196 :: "bool \<Rightarrow> codepoint \<Rightarrow> lex_case" where
  "mozjs_lex_196 eof la = (Some mozjs_anon_sym_GT_GT_EQ, END_STATE)"

definition mozjs_lex_197 :: "bool \<Rightarrow> codepoint \<Rightarrow> lex_case" where
  "mozjs_lex_197 eof la = (Some mozjs_anon_sym_GT_GT_GT_EQ, END_STATE)"

definition mozjs_lex_198 :: "bool \<Rightarrow> codepoint \<Rightarrow> lex_case" where
  "mozjs_lex_198 eof la = (Some mozjs_anon_sym_LT_LT_EQ, END_STATE)"

definition mozjs_lex_199 :: "bool \<Rightarrow> codepoint \<Rightarrow> lex_case" where
  "mozjs_lex_199 eof la = (Some mozjs_anon_sym_STAR_STAR_EQ, END_STATE)"

definition mozjs_lex_200 :: "bool \<Rightarrow> codepoint \<Rightarrow> lex_case" where
  "mozjs_lex_200 eof la = (Some mozjs_anon_sym_AMP_AMP_EQ, END_STATE)"

definition mozjs_lex_201 :: "bool \<Rightarrow> codepoint \<Rightarrow> lex_case" where
  "mozjs_lex_201 eof la = (Some mozjs_anon_sym_PIPE_PIPE_EQ, END_STATE)"

definition mozjs_lex_202 :: "bool \<Rightarrow> codepoint \<Rightarrow> lex_case" where
  "mozjs_lex_202 eof la = (Some mozjs_anon_sym_QMARK_QMARK_EQ, END_STATE)"

definition mozjs_lex_203 :: "bool \<Rightarrow> codepoint \<Rightarrow> lex_case" where
  "mozjs_lex_203 eof la = (Some mozjs_anon_sym_DOT_DOT_DOT, END_STATE)"

definition mozjs_lex_204 :: "bool \<Rightarrow> codepoint \<Rightarrow> lex_case" where
  "mozjs_lex_204 eof la = (Some mozjs_anon_sym_AMP_AMP, END_STATE)"

definition mozjs_lex_205 :: "bool \<Rightarrow> codepoint \<Rightarrow> lex_case" where
  "mozjs_lex_205 eof la = (Some mozjs_anon_sym_AMP_AMP,
      if la = CH_EQUALS then ADVANCE 200 else END_STATE)"

definition mozjs_lex_206 :: "bool \<Rightarrow> codepoint \<Rightarrow> lex_case" where
  "mozjs_lex_206 eof la = (Some mozjs_anon_sym_PIPE_PIPE, END_STATE)"

definition mozjs_lex_207 :: "bool \<Rightarrow> codepoint \<Rightarrow> lex_case" where
  "mozjs_lex_207 eof la = (Some mozjs_anon_sym_PIPE_PIPE,
      if la = CH_EQUALS then ADVANCE 201 else END_STATE)"

definition mozjs_lex_208 :: "bool \<Rightarrow> codepoint \<Rightarrow> lex_case" where
  "mozjs_lex_208 eof la = (Some mozjs_anon_sym_GT_GT,
      if la = CH_EQUALS then ADVANCE 196 else
      if la = CH_GT then ADVANCE 211 else END_STATE)"

definition mozjs_lex_209 :: "bool \<Rightarrow> codepoint \<Rightarrow> lex_case" where
  "mozjs_lex_209 eof la = (Some mozjs_anon_sym_GT_GT,
      if la = CH_GT then ADVANCE 210 else END_STATE)"

definition mozjs_lex_210 :: "bool \<Rightarrow> codepoint \<Rightarrow> lex_case" where
  "mozjs_lex_210 eof la = (Some mozjs_anon_sym_GT_GT_GT, END_STATE)"

definition mozjs_lex_211 :: "bool \<Rightarrow> codepoint \<Rightarrow> lex_case" where
  "mozjs_lex_211 eof la = (Some mozjs_anon_sym_GT_GT_GT,
      if la = CH_EQUALS then ADVANCE 197 else END_STATE)"

definition mozjs_lex_212 :: "bool \<Rightarrow> codepoint \<Rightarrow> lex_case" where
  "mozjs_lex_212 eof la = (Some mozjs_anon_sym_LT_LT, END_STATE)"

definition mozjs_lex_213 :: "bool \<Rightarrow> codepoint \<Rightarrow> lex_case" where
  "mozjs_lex_213 eof la = (Some mozjs_anon_sym_LT_LT,
      if la = CH_EQUALS then ADVANCE 198 else END_STATE)"

definition mozjs_lex_214 :: "bool \<Rightarrow> codepoint \<Rightarrow> lex_case" where
  "mozjs_lex_214 eof la = (Some mozjs_anon_sym_AMP,
      if la = CH_AMP then ADVANCE 205 else
      if la = CH_EQUALS then ADVANCE 194 else END_STATE)"

definition mozjs_lex_215 :: "bool \<Rightarrow> codepoint \<Rightarrow> lex_case" where
  "mozjs_lex_215 eof la = (Some mozjs_anon_sym_AMP,
      if la = CH_AMP then ADVANCE 204 else END_STATE)"

definition mozjs_lex_216 :: "bool \<Rightarrow> codepoint \<Rightarrow> lex_case" where
  "mozjs_lex_216 eof la = (Some mozjs_anon_sym_CARET, END_STATE)"

definition mozjs_lex_217 :: "bool \<Rightarrow> codepoint \<Rightarrow> lex_case" where
  "mozjs_lex_217 eof la = (Some mozjs_anon_sym_CARET,
      if la = CH_EQUALS then ADVANCE 193 else END_STATE)"

definition mozjs_lex_218 :: "bool \<Rightarrow> codepoint \<Rightarrow> lex_case" where
  "mozjs_lex_218 eof la = (Some mozjs_anon_sym_PIPE,
      if la = CH_EQUALS then ADVANCE 195 else
      if la = CH_BAR then ADVANCE 207 else END_STATE)"

definition mozjs_lex_219 :: "bool \<Rightarrow> codepoint \<Rightarrow> lex_case" where
  "mozjs_lex_219 eof la = (Some mozjs_anon_sym_PIPE,
      if la = CH_BAR then ADVANCE 206 else END_STATE)"

definition mozjs_lex_220 :: "bool \<Rightarrow> codepoint \<Rightarrow> lex_case" where
  "mozjs_lex_220 eof la = (Some mozjs_anon_sym_PLUS,
      if la = CH_PLUS then ADVANCE 241 else END_STATE)"

definition mozjs_lex_221 :: "bool \<Rightarrow> codepoint \<Rightarrow> lex_case" where
  "mozjs_lex_221 eof la = (Some mozjs_anon_sym_PLUS,
      if la = CH_PLUS then ADVANCE 241 else
      if la = CH_EQUALS then ADVANCE 188 else END_STATE)"

definition mozjs_lex_222 :: "bool \<Rightarrow> codepoint \<Rightarrow> lex_case" where
  "mozjs_lex_222 eof la = (Some mozjs_anon_sym_DASH,
      if la = CH_MINUS then ADVANCE 242 else END_STATE)"

definition mozjs_lex_223 :: "bool \<Rightarrow> codepoint \<Rightarrow> lex_case" where
  "mozjs_lex_223 eof la = (Some mozjs_anon_sym_DASH,
      if la = CH_MINUS then ADVANCE 242 else
      if la = CH_EQUALS then ADVANCE 189 else END_STATE)"

definition mozjs_lex_224 :: "bool \<Rightarrow> codepoint \<Rightarrow> lex_case" where
  "mozjs_lex_224 eof la = (Some mozjs_anon_sym_SLASH,
      if la = CH_STAR then ADVANCE 36 else
      if la = CH_SLASH then ADVANCE 263 else END_STATE)"

definition mozjs_lex_225 :: "bool \<Rightarrow> codepoint \<Rightarrow> lex_case" where
  "mozjs_lex_225 eof la = (Some mozjs_anon_sym_SLASH,
      if la = CH_STAR then ADVANCE 36 else
      if la = CH_SLASH then ADVANCE 263 else
      if la = CH_EQUALS then ADVANCE 191 else END_STATE)"

definition mozjs_lex_226 :: "bool \<Rightarrow> codepoint \<Rightarrow> lex_case" where
  "mozjs_lex_226 eof la = (Some mozjs_anon_sym_PERCENT, END_STATE)"

definition mozjs_lex_227 :: "bool \<Rightarrow> codepoint \<Rightarrow> lex_case" where
  "mozjs_lex_227 eof la = (Some mozjs_anon_sym_PERCENT,
      if la = CH_EQUALS then ADVANCE 192 else END_STATE)"

definition mozjs_lex_228 :: "bool \<Rightarrow> codepoint \<Rightarrow> lex_case" where
  "mozjs_lex_228 eof la = (Some mozjs_anon_sym_STAR_STAR, END_STATE)"

definition mozjs_lex_229 :: "bool \<Rightarrow> codepoint \<Rightarrow> lex_case" where
  "mozjs_lex_229 eof la = (Some mozjs_anon_sym_STAR_STAR,
      if la = CH_EQUALS then ADVANCE 199 else END_STATE)"

definition mozjs_lex_230 :: "bool \<Rightarrow> codepoint \<Rightarrow> lex_case" where
  "mozjs_lex_230 eof la = (Some mozjs_anon_sym_LT_EQ, END_STATE)"

definition mozjs_lex_231 :: "bool \<Rightarrow> codepoint \<Rightarrow> lex_case" where
  "mozjs_lex_231 eof la = (Some mozjs_anon_sym_EQ_EQ,
      if la = CH_EQUALS then ADVANCE 232 else END_STATE)"

definition mozjs_lex_232 :: "bool \<Rightarrow> codepoint \<Rightarrow> lex_case" where
  "mozjs_lex_232 eof la = (Some mozjs_anon_sym_EQ_EQ_EQ, END_STATE)"

definition mozjs_lex_233 :: "bool \<Rightarrow> codepoint \<Rightarrow> lex_case" where
  "mozjs_lex_233 eof la = (Some mozjs_anon_sym_BANG_EQ,
      if la = CH_EQUALS then ADVANCE 234 else END_STATE)"

definition mozjs_lex_234 :: "bool \<Rightarrow> codepoint \<Rightarrow> lex_case" where
  "mozjs_lex_234 eof la = (Some mozjs_anon_sym_BANG_EQ_EQ, END_STATE)"

definition mozjs_lex_235 :: "bool \<Rightarrow> codepoint \<Rightarrow> lex_case" where
  "mozjs_lex_235 eof la = (Some mozjs_anon_sym_GT_EQ, END_STATE)"

definition mozjs_lex_236 :: "bool \<Rightarrow> codepoint \<Rightarrow> lex_case" where
  "mozjs_lex_236 eof la = (Some mozjs_anon_sym_QMARK_QMARK, END_STATE)"

definition mozjs_lex_237 :: "bool \<Rightarrow> codepoint \<Rightarrow> lex_case" where
  "mozjs_lex_237 eof la = (Some mozjs_anon_sym_QMARK_QMARK,
      if la = CH_EQUALS then ADVANCE 202 else END_STATE)"

definition mozjs_lex_238 :: "bool \<Rightarrow> codepoint \<Rightarrow> lex_case" where
  "mozjs_lex_238 eof la = (Some mozjs_anon_sym_BANG, END_STATE)"

definition mozjs_lex_239 :: "bool \<Rightarrow> codepoint \<Rightarrow> lex_case" where
  "mozjs_lex_239 eof la = (Some mozjs_anon_sym_BANG,
      if la = CH_EQUALS then ADVANCE 233 else END_STATE)"

definition mozjs_lex_240 :: "bool \<Rightarrow> codepoint \<Rightarrow> lex_case" where
  "mozjs_lex_240 eof la = (Some mozjs_anon_sym_TILDE, END_STATE)"

definition mozjs_lex_241 :: "bool \<Rightarrow> codepoint \<Rightarrow> lex_case" where
  "mozjs_lex_241 eof la = (Some mozjs_anon_sym_PLUS_PLUS, END_STATE)"

definition mozjs_lex_242 :: "bool \<Rightarrow> codepoint \<Rightarrow> lex_case" where
  "mozjs_lex_242 eof la = (Some mozjs_anon_sym_DASH_DASH, END_STATE)"

definition mozjs_lex_243 :: "bool \<Rightarrow> codepoint \<Rightarrow> lex_case" where
  "mozjs_lex_243 eof la = (Some mozjs_sym_unescaped_double_string_fragment,
      if la = CH_STAR then ADVANCE 245 else
      if la = CH_SLASH then ADVANCE 247 else
      if la \<noteq> 0 \<and> la \<noteq> CH_LF \<and> la \<noteq> CH_CR \<and> la \<noteq>
        CH_DQUOTE \<and> la \<noteq> CH_BACKSLASH then ADVANCE 248 else END_STATE)"

definition mozjs_lex_244 :: "bool \<Rightarrow> codepoint \<Rightarrow> lex_case" where
  "mozjs_lex_244 eof la = (Some mozjs_sym_unescaped_double_string_fragment,
      if la = CH_STAR then ADVANCE 244 else
      if la = CH_SLASH then ADVANCE 248 else
      if la \<noteq> 0 \<and> la \<noteq> CH_LF \<and> la \<noteq> CH_CR \<and> la \<noteq>
        CH_DQUOTE \<and> la \<noteq> CH_BACKSLASH then ADVANCE 245 else END_STATE)"

definition mozjs_lex_245 :: "bool \<Rightarrow> codepoint \<Rightarrow> lex_case" where
  "mozjs_lex_245 eof la = (Some mozjs_sym_unescaped_double_string_fragment,
      if la = CH_STAR then ADVANCE 244 else
      if la \<noteq> 0 \<and> la \<noteq> CH_LF \<and> la \<noteq> CH_CR \<and> la \<noteq>
        CH_DQUOTE \<and> la \<noteq> CH_BACKSLASH then ADVANCE 245 else END_STATE)"

definition mozjs_lex_246 :: "bool \<Rightarrow> codepoint \<Rightarrow> lex_case" where
  "mozjs_lex_246 eof la = (Some mozjs_sym_unescaped_double_string_fragment,
      if la = CH_SLASH then ADVANCE 243 else
      if (mozjs_in_extras la) \<and> la \<noteq> CH_LF \<and> la \<noteq> CH_CR then ADVANCE 246
        else
      if la \<noteq> 0 \<and> (la < CH_TAB \<or> CH_CR < la) \<and> la \<noteq> CH_DQUOTE \<and>
        la \<noteq> CH_BACKSLASH then ADVANCE 248 else END_STATE)"

definition mozjs_lex_247 :: "bool \<Rightarrow> codepoint \<Rightarrow> lex_case" where
  "mozjs_lex_247 eof la = (Some mozjs_sym_unescaped_double_string_fragment,
      if la = 8232 \<or> la = 8233 then ADVANCE 248 else
      if la \<noteq> 0 \<and> la \<noteq> CH_LF \<and> la \<noteq> CH_CR \<and> la \<noteq>
        CH_DQUOTE \<and> la \<noteq> CH_BACKSLASH then ADVANCE 247 else END_STATE)"

definition mozjs_lex_248 :: "bool \<Rightarrow> codepoint \<Rightarrow> lex_case" where
  "mozjs_lex_248 eof la = (Some mozjs_sym_unescaped_double_string_fragment,
      if la \<noteq> 0 \<and> la \<noteq> CH_LF \<and> la \<noteq> CH_CR \<and> la \<noteq>
        CH_DQUOTE \<and> la \<noteq> CH_BACKSLASH then ADVANCE 248 else END_STATE)"

definition mozjs_lex_249 :: "bool \<Rightarrow> codepoint \<Rightarrow> lex_case" where
  "mozjs_lex_249 eof la = (Some mozjs_sym_unescaped_single_string_fragment,
      if la = CH_STAR then ADVANCE 251 else
      if la = CH_SLASH then ADVANCE 253 else
      if la \<noteq> 0 \<and> la \<noteq> CH_LF \<and> la \<noteq> CH_CR \<and> la \<noteq>
        CH_QUOTE \<and> la \<noteq> CH_BACKSLASH then ADVANCE 254 else END_STATE)"

definition mozjs_lex_250 :: "bool \<Rightarrow> codepoint \<Rightarrow> lex_case" where
  "mozjs_lex_250 eof la = (Some mozjs_sym_unescaped_single_string_fragment,
      if la = CH_STAR then ADVANCE 250 else
      if la = CH_SLASH then ADVANCE 254 else
      if la \<noteq> 0 \<and> la \<noteq> CH_LF \<and> la \<noteq> CH_CR \<and> la \<noteq>
        CH_QUOTE \<and> la \<noteq> CH_BACKSLASH then ADVANCE 251 else END_STATE)"

definition mozjs_lex_251 :: "bool \<Rightarrow> codepoint \<Rightarrow> lex_case" where
  "mozjs_lex_251 eof la = (Some mozjs_sym_unescaped_single_string_fragment,
      if la = CH_STAR then ADVANCE 250 else
      if la \<noteq> 0 \<and> la \<noteq> CH_LF \<and> la \<noteq> CH_CR \<and> la \<noteq>
        CH_QUOTE \<and> la \<noteq> CH_BACKSLASH then ADVANCE 251 else END_STATE)"

definition mozjs_lex_252 :: "bool \<Rightarrow> codepoint \<Rightarrow> lex_case" where
  "mozjs_lex_252 eof la = (Some mozjs_sym_unescaped_single_string_fragment,
      if la = CH_SLASH then ADVANCE 249 else
      if (mozjs_in_extras la) \<and> la \<noteq> CH_LF \<and> la \<noteq> CH_CR then ADVANCE 252
        else
      if la \<noteq> 0 \<and> (la < CH_TAB \<or> CH_CR < la) \<and> la \<noteq> CH_QUOTE \<and>
        la \<noteq> CH_BACKSLASH then ADVANCE 254 else END_STATE)"

definition mozjs_lex_253 :: "bool \<Rightarrow> codepoint \<Rightarrow> lex_case" where
  "mozjs_lex_253 eof la = (Some mozjs_sym_unescaped_single_string_fragment,
      if la = 8232 \<or> la = 8233 then ADVANCE 254 else
      if la \<noteq> 0 \<and> la \<noteq> CH_LF \<and> la \<noteq> CH_CR \<and> la \<noteq>
        CH_QUOTE \<and> la \<noteq> CH_BACKSLASH then ADVANCE 253 else END_STATE)"

definition mozjs_lex_254 :: "bool \<Rightarrow> codepoint \<Rightarrow> lex_case" where
  "mozjs_lex_254 eof la = (Some mozjs_sym_unescaped_single_string_fragment,
      if la \<noteq> 0 \<and> la \<noteq> CH_LF \<and> la \<noteq> CH_CR \<and> la \<noteq>
        CH_QUOTE \<and> la \<noteq> CH_BACKSLASH then ADVANCE 254 else END_STATE)"

definition mozjs_lex_255 :: "bool \<Rightarrow> codepoint \<Rightarrow> lex_case" where
  "mozjs_lex_255 eof la = (Some mozjs_sym_escape_sequence, END_STATE)"

definition mozjs_lex_256 :: "bool \<Rightarrow> codepoint \<Rightarrow> lex_case" where
  "mozjs_lex_256 eof la = (Some mozjs_sym_escape_sequence,
      if la = CH_BACKSLASH then ADVANCE 94 else
      if mozjs_in_identifier la then ADVANCE 288 else END_STATE)"

definition mozjs_lex_257 :: "bool \<Rightarrow> codepoint \<Rightarrow> lex_case" where
  "mozjs_lex_257 eof la = (Some mozjs_sym_escape_sequence,
      if la = CH_LF \<or> la = 8232 \<or> la = 8233 then ADVANCE 255 else END_STATE)"

definition mozjs_lex_258 :: "bool \<Rightarrow> codepoint \<Rightarrow> lex_case" where
  "mozjs_lex_258 eof la = (Some mozjs_sym_escape_sequence,
      if CH_0 \<le> la \<and> la \<le> CH_7 then ADVANCE 255 else END_STATE)"

definition mozjs_lex_259 :: "bool \<Rightarrow> codepoint \<Rightarrow> lex_case" where
  "mozjs_lex_259 eof la = (Some mozjs_sym_escape_sequence,
      if CH_0 \<le> la \<and> la \<le> CH_7 then ADVANCE 258 else END_STATE)"

definition mozjs_lex_260 :: "bool \<Rightarrow> codepoint \<Rightarrow> lex_case" where
  "mozjs_lex_260 eof la = (Some mozjs_sym_comment, END_STATE)"

definition mozjs_lex_261 :: "bool \<Rightarrow> codepoint \<Rightarrow> lex_case" where
  "mozjs_lex_261 eof la = (Some mozjs_sym_comment,
      if la = CH_LF \<or> la = CH_CR \<or> la = 8232 \<or> la = 8233 then ADVANCE 176 else
      if la = CH_HASH \<or> (CH_A \<le> la \<and> la \<le> CH_Z) \<or> (CH_a \<le> la \<and> la
        \<le> CH_z) then ADVANCE 263 else
      if la \<noteq> 0 then ADVANCE 179 else END_STATE)"

definition mozjs_lex_262 :: "bool \<Rightarrow> codepoint \<Rightarrow> lex_case" where
  "mozjs_lex_262 eof la = (Some mozjs_sym_comment,
      if la = CH_LF \<or> la = CH_CR \<or> la = 8232 \<or> la = 8233 then ADVANCE 182 else
      if la = CH_HASH \<or> (CH_A \<le> la \<and> la \<le> CH_Z) \<or> (CH_a \<le> la \<and> la
        \<le> CH_z) then ADVANCE 263 else
      if la \<noteq> 0 then ADVANCE 185 else END_STATE)"

definition mozjs_lex_263 :: "bool \<Rightarrow> codepoint \<Rightarrow> lex_case" where
  "mozjs_lex_263 eof la = (Some mozjs_sym_comment,
      if la \<noteq> 0 \<and> la \<noteq> CH_LF \<and> la \<noteq> CH_CR \<and> la \<noteq> 8232
        \<and> la \<noteq> 8233 then ADVANCE 263 else END_STATE)"

definition mozjs_lex_264 :: "bool \<Rightarrow> codepoint \<Rightarrow> lex_case" where
  "mozjs_lex_264 eof la = (Some mozjs_anon_sym_BQUOTE, END_STATE)"

definition mozjs_lex_265 :: "bool \<Rightarrow> codepoint \<Rightarrow> lex_case" where
  "mozjs_lex_265 eof la = (Some mozjs_anon_sym_DOLLAR_LBRACE, END_STATE)"

definition mozjs_lex_266 :: "bool \<Rightarrow> codepoint \<Rightarrow> lex_case" where
  "mozjs_lex_266 eof la = (Some mozjs_anon_sym_SLASH2, END_STATE)"

definition mozjs_lex_267 :: "bool \<Rightarrow> codepoint \<Rightarrow> lex_case" where
  "mozjs_lex_267 eof la = (Some mozjs_sym_regex_pattern,
      if la = CH_LF then SKIP 46 else
      if la = CH_SLASH then ADVANCE 33 else
      if la = CH_LBRACKET then ADVANCE 88 else
      if la = CH_BACKSLASH then ADVANCE 135 else
      if mozjs_in_extras la then ADVANCE 267 else
      if la \<noteq> 0 then ADVANCE 268 else END_STATE)"

definition mozjs_lex_268 :: "bool \<Rightarrow> codepoint \<Rightarrow> lex_case" where
  "mozjs_lex_268 eof la = (Some mozjs_sym_regex_pattern,
      if la = CH_LBRACKET then ADVANCE 88 else
      if la = CH_BACKSLASH then ADVANCE 135 else
      if la \<noteq> 0 \<and> la \<noteq> CH_LF \<and> la \<noteq> CH_SLASH then ADVANCE 268 else
        END_STATE)"

definition mozjs_lex_269 :: "bool \<Rightarrow> codepoint \<Rightarrow> lex_case" where
  "mozjs_lex_269 eof la = (Some mozjs_sym_regex_flags,
      if la = CH_BACKSLASH then ADVANCE 94 else
      if CH_a \<le> la \<and> la \<le> CH_z then ADVANCE 269 else
      if mozjs_in_identifier la then ADVANCE 288 else END_STATE)"

definition mozjs_lex_270 :: "bool \<Rightarrow> codepoint \<Rightarrow> lex_case" where
  "mozjs_lex_270 eof la = (Some mozjs_sym_number, END_STATE)"

definition mozjs_lex_271 :: "bool \<Rightarrow> codepoint \<Rightarrow> lex_case" where
  "mozjs_lex_271 eof la = (Some mozjs_sym_number,
      case ADVANCE_MAP [(CH_DOT, 279), (CH_0, 273), (CH_UNDERSCORE, 112), (CH_n, 270), (CH_B,
        108), (CH_b, 108), (CH_E, 106), (CH_e, 106), (CH_O, 109), (CH_o, 109), (CH_X, 116),
        (CH_x, 116)] la of Some st \<Rightarrow> ADVANCE st | None \<Rightarrow> (
      if CH_1 \<le> la \<and> la \<le> CH_9 then ADVANCE 272 else END_STATE))"

definition mozjs_lex_272 :: "bool \<Rightarrow> codepoint \<Rightarrow> lex_case" where
  "mozjs_lex_272 eof la = (Some mozjs_sym_number,
      if la = CH_DOT then ADVANCE 279 else
      if la = CH_UNDERSCORE then ADVANCE 110 else
      if la = CH_n then ADVANCE 270 else
      if la = CH_E \<or> la = CH_e then ADVANCE 106 else
      if CH_0 \<le> la \<and> la \<le> CH_9 then ADVANCE 272 else END_STATE)"

definition mozjs_lex_273 :: "bool \<Rightarrow> codepoint \<Rightarrow> lex_case" where
  "mozjs_lex_273 eof la = (Some mozjs_sym_number,
      if la = CH_UNDERSCORE then ADVANCE 112 else
      if la = CH_n then ADVANCE 270 else
      if CH_0 \<le> la \<and> la \<le> CH_9 then ADVANCE 273 else END_STATE)"

definition mozjs_lex_274 :: "bool \<Rightarrow> codepoint \<Rightarrow> lex_case" where
  "mozjs_lex_274 eof la = (Some mozjs_sym_number,
      if la = CH_UNDERSCORE then ADVANCE 108 else
      if la = CH_n then ADVANCE 270 else
      if la = CH_0 \<or> la = CH_1 then ADVANCE 274 else END_STATE)"

definition mozjs_lex_275 :: "bool \<Rightarrow> codepoint \<Rightarrow> lex_case" where
  "mozjs_lex_275 eof la = (Some mozjs_sym_number,
      if la = CH_UNDERSCORE then ADVANCE 109 else
      if la = CH_n then ADVANCE 270 else
      if CH_0 \<le> la \<and> la \<le> CH_7 then ADVANCE 275 else END_STATE)"

definition mozjs_lex_276 :: "bool \<Rightarrow> codepoint \<Rightarrow> lex_case" where
  "mozjs_lex_276 eof la = (Some mozjs_sym_number,
      if la = CH_UNDERSCORE then ADVANCE 116 else
      if la = CH_n then ADVANCE 270 else
      if (CH_0 \<le> la \<and> la \<le> CH_9) \<or> (CH_A \<le> la \<and> la \<le> CH_F) \<or>
        (CH_a \<le> la \<and> la \<le> CH_f) then ADVANCE 276 else END_STATE)"

definition mozjs_lex_277 :: "bool \<Rightarrow> codepoint \<Rightarrow> lex_case" where
  "mozjs_lex_277 eof la = (Some mozjs_sym_number,
      if la = CH_UNDERSCORE then ADVANCE 111 else
      if la = CH_E \<or> la = CH_e then ADVANCE 106 else
      if CH_0 \<le> la \<and> la \<le> CH_9 then ADVANCE 277 else END_STATE)"

definition mozjs_lex_278 :: "bool \<Rightarrow> codepoint \<Rightarrow> lex_case" where
  "mozjs_lex_278 eof la = (Some mozjs_sym_number,
      if la = CH_UNDERSCORE then ADVANCE 113 else
      if CH_0 \<le> la \<and> la \<le> CH_9 then ADVANCE 278 else END_STATE)"

definition mozjs_lex_279 :: "bool \<Rightarrow> codepoint \<Rightarrow> lex_case" where
  "mozjs_lex_279 eof la = (Some mozjs_sym_number,
      if la = CH_E \<or> la = CH_e then ADVANCE 106 else
      if CH_0 \<le> la \<and> la \<le> CH_9 then ADVANCE 277 else END_STATE)"

definition mozjs_lex_280 :: "bool \<Rightarrow> codepoint \<Rightarrow> lex_case" where
  "mozjs_lex_280 eof la = (Some mozjs_sym_identifier,
      if la = CH_MINUS then ADVANCE 166 else
      if la = CH_BACKSLASH then ADVANCE 94 else
      if la = CH_DOLLAR \<or> (CH_0 \<le> la \<and> la \<le> CH_9) \<or> (CH_A \<le> la \<and> la
        \<le> CH_Z) \<or> la = CH_UNDERSCORE \<or> (CH_a \<le> la \<and> la \<le> CH_z) then
        ADVANCE 280 else
      if mozjs_in_identifier la then ADVANCE 288 else END_STATE)"

definition mozjs_lex_281 :: "bool \<Rightarrow> codepoint \<Rightarrow> lex_case" where
  "mozjs_lex_281 eof la = (Some mozjs_sym_identifier,
      if la = CH_BACKSLASH then ADVANCE 94 else
      if la = CH_a then ADVANCE 285 else
      if mozjs_in_identifier la then ADVANCE 288 else END_STATE)"

definition mozjs_lex_282 :: "bool \<Rightarrow> codepoint \<Rightarrow> lex_case" where
  "mozjs_lex_282 eof la = (Some mozjs_sym_identifier,
      if la = CH_BACKSLASH then ADVANCE 94 else
      if la = CH_c then ADVANCE 287 else
      if mozjs_in_identifier la then ADVANCE 288 else END_STATE)"

definition mozjs_lex_283 :: "bool \<Rightarrow> codepoint \<Rightarrow> lex_case" where
  "mozjs_lex_283 eof la = (Some mozjs_sym_identifier,
      if la = CH_BACKSLASH then ADVANCE 94 else
      if la = CH_i then ADVANCE 282 else
      if mozjs_in_identifier la then ADVANCE 288 else END_STATE)"

definition mozjs_lex_284 :: "bool \<Rightarrow> codepoint \<Rightarrow> lex_case" where
  "mozjs_lex_284 eof la = (Some mozjs_sym_identifier,
      if la = CH_BACKSLASH then ADVANCE 94 else
      if la = CH_t then ADVANCE 281 else
      if mozjs_in_identifier la then ADVANCE 288 else END_STATE)"

definition mozjs_lex_285 :: "bool \<Rightarrow> codepoint \<Rightarrow> lex_case" where
  "mozjs_lex_285 eof la = (Some mozjs_sym_identifier,
      if la = CH_BACKSLASH then ADVANCE 94 else
      if la = CH_t then ADVANCE 283 else
      if mozjs_in_identifier la then ADVANCE 288 else END_STATE)"

definition mozjs_lex_286 :: "bool \<Rightarrow> codepoint \<Rightarrow> lex_case" where
  "mozjs_lex_286 eof la = (Some mozjs_sym_identifier,
      if la = CH_BACKSLASH then ADVANCE 94 else
      if la = CH_LBRACE then ADVANCE 265 else
      if mozjs_in_identifier la then ADVANCE 288 else END_STATE)"

definition mozjs_lex_287 :: "bool \<Rightarrow> codepoint \<Rightarrow> lex_case" where
  "mozjs_lex_287 eof la = (Some mozjs_sym_identifier,
      if la = CH_BACKSLASH then ADVANCE 94 else
      if (CH_TAB \<le> la \<and> la \<le> CH_CR) \<or> la = CH_SPACE then ADVANCE 91 else
      if mozjs_in_identifier la then ADVANCE 288 else END_STATE)"

definition mozjs_lex_288 :: "bool \<Rightarrow> codepoint \<Rightarrow> lex_case" where
  "mozjs_lex_288 eof la = (Some mozjs_sym_identifier,
      if la = CH_BACKSLASH then ADVANCE 94 else
      if mozjs_in_identifier la then ADVANCE 288 else END_STATE)"

definition mozjs_lex_289 :: "bool \<Rightarrow> codepoint \<Rightarrow> lex_case" where
  "mozjs_lex_289 eof la = (Some mozjs_sym_private_property_identifier,
      if la = CH_LF then ADVANCE 293 else
      if la = CH_BACKSLASH then ADVANCE 3 else
      if mozjs_in_extras la \<or> (\<not> eof \<and> la \<le> 8) \<or> (14 \<le> la \<and> la
        \<le> 31) \<or> (CH_BANG \<le> la \<and> la \<le> CH_HASH) \<or> (CH_PERCENT \<le> la
        \<and> la \<le> CH_SLASH) \<or> (CH_COLON \<le> la \<and> la \<le> CH_AT) \<or>
        (CH_LBRACKET \<le> la \<and> la \<le> CH_CARET) \<or> la = CH_BACKTICK \<or> (CH_LBRACE
        \<le> la \<and> la \<le> CH_TILDE) then ADVANCE 10 else
      if la > CH_HASH then ADVANCE 289 else END_STATE)"

definition mozjs_lex_290 :: "bool \<Rightarrow> codepoint \<Rightarrow> lex_case" where
  "mozjs_lex_290 eof la = (Some mozjs_sym_private_property_identifier,
      if la = CH_BACKSLASH then ADVANCE 95 else
      if mozjs_in_identifier la then ADVANCE 290 else END_STATE)"

definition mozjs_lex_291 :: "bool \<Rightarrow> codepoint \<Rightarrow> lex_case" where
  "mozjs_lex_291 eof la = (Some mozjs_anon_sym_AT, END_STATE)"

definition mozjs_lex_292 :: "bool \<Rightarrow> codepoint \<Rightarrow> lex_case" where
  "mozjs_lex_292 eof la = (Some mozjs_aux_sym_method_definition_token1,
      if la = CH_LF then ADVANCE 292 else
      if (CH_TAB \<le> la \<and> la \<le> CH_CR) \<or> la = CH_SPACE then ADVANCE 11 else
        END_STATE)"

definition mozjs_lex_293 :: "bool \<Rightarrow> codepoint \<Rightarrow> lex_case" where
  "mozjs_lex_293 eof la = (Some mozjs_sym_preproc, END_STATE)"

definition mozjs_lex_cases_0 :: "(bool \<Rightarrow> codepoint \<Rightarrow> lex_case) list" where
  "mozjs_lex_cases_0 = [mozjs_lex_0, mozjs_lex_1, mozjs_lex_2, mozjs_lex_3, mozjs_lex_4,
    mozjs_lex_5, mozjs_lex_6, mozjs_lex_7, mozjs_lex_8, mozjs_lex_9, mozjs_lex_10, mozjs_lex_11,
    mozjs_lex_12]"

definition mozjs_lex_cases_1 :: "(bool \<Rightarrow> codepoint \<Rightarrow> lex_case) list" where
  "mozjs_lex_cases_1 = [mozjs_lex_13, mozjs_lex_14, mozjs_lex_15, mozjs_lex_16]"

definition mozjs_lex_cases_2 :: "(bool \<Rightarrow> codepoint \<Rightarrow> lex_case) list" where
  "mozjs_lex_cases_2 = [mozjs_lex_17, mozjs_lex_18, mozjs_lex_19, mozjs_lex_20, mozjs_lex_21]"

definition mozjs_lex_cases_3 :: "(bool \<Rightarrow> codepoint \<Rightarrow> lex_case) list" where
  "mozjs_lex_cases_3 = [mozjs_lex_22, mozjs_lex_23, mozjs_lex_24, mozjs_lex_25, mozjs_lex_26,
    mozjs_lex_27, mozjs_lex_28, mozjs_lex_29, mozjs_lex_30, mozjs_lex_31, mozjs_lex_32,
    mozjs_lex_33, mozjs_lex_34, mozjs_lex_35, mozjs_lex_36, mozjs_lex_37, mozjs_lex_38,
    mozjs_lex_39, mozjs_lex_40, mozjs_lex_41, mozjs_lex_42, mozjs_lex_43, mozjs_lex_44,
    mozjs_lex_45, mozjs_lex_46, mozjs_lex_47]"

definition mozjs_lex_cases_4 :: "(bool \<Rightarrow> codepoint \<Rightarrow> lex_case) list" where
  "mozjs_lex_cases_4 = [mozjs_lex_48, mozjs_lex_49, mozjs_lex_50, mozjs_lex_51, mozjs_lex_52,
    mozjs_lex_53, mozjs_lex_54, mozjs_lex_55, mozjs_lex_56, mozjs_lex_57, mozjs_lex_58,
    mozjs_lex_59, mozjs_lex_60, mozjs_lex_61, mozjs_lex_62, mozjs_lex_63, mozjs_lex_64,
    mozjs_lex_65, mozjs_lex_66, mozjs_lex_67, mozjs_lex_68, mozjs_lex_69, mozjs_lex_70,
    mozjs_lex_71, mozjs_lex_72, mozjs_lex_73, mozjs_lex_74, mozjs_lex_75, mozjs_lex_76]"

definition mozjs_lex_cases_5 :: "(bool \<Rightarrow> codepoint \<Rightarrow> lex_case) list" where
  "mozjs_lex_cases_5 = [mozjs_lex_77, mozjs_lex_78, mozjs_lex_79, mozjs_lex_80, mozjs_lex_81,
    mozjs_lex_82, mozjs_lex_83, mozjs_lex_84, mozjs_lex_85, mozjs_lex_86, mozjs_lex_87,
    mozjs_lex_88, mozjs_lex_89, mozjs_lex_90, mozjs_lex_91, mozjs_lex_92, mozjs_lex_93,
    mozjs_lex_94, mozjs_lex_95, mozjs_lex_96, mozjs_lex_97, mozjs_lex_98, mozjs_lex_99,
    mozjs_lex_100, mozjs_lex_101, mozjs_lex_102, mozjs_lex_103, mozjs_lex_104, mozjs_lex_105,
    mozjs_lex_106]"

definition mozjs_lex_cases_6 :: "(bool \<Rightarrow> codepoint \<Rightarrow> lex_case) list" where
  "mozjs_lex_cases_6 = [mozjs_lex_107, mozjs_lex_108, mozjs_lex_109, mozjs_lex_110,
    mozjs_lex_111, mozjs_lex_112, mozjs_lex_113, mozjs_lex_114, mozjs_lex_115, mozjs_lex_116,
    mozjs_lex_117, mozjs_lex_118, mozjs_lex_119, mozjs_lex_120, mozjs_lex_121, mozjs_lex_122,
    mozjs_lex_123, mozjs_lex_124, mozjs_lex_125, mozjs_lex_126, mozjs_lex_127, mozjs_lex_128,
    mozjs_lex_129, mozjs_lex_130, mozjs_lex_131, mozjs_lex_132, mozjs_lex_133, mozjs_lex_134,
    mozjs_lex_135]"

definition mozjs_lex_cases_7 :: "(bool \<Rightarrow> codepoint \<Rightarrow> lex_case) list" where
  "mozjs_lex_cases_7 = [mozjs_lex_136, mozjs_lex_137, mozjs_lex_138, mozjs_lex_139,
    mozjs_lex_140, mozjs_lex_141, mozjs_lex_142, mozjs_lex_143, mozjs_lex_144, mozjs_lex_145,
    mozjs_lex_146, mozjs_lex_147]"

definition mozjs_lex_cases_8 :: "(bool \<Rightarrow> codepoint \<Rightarrow> lex_case) list" where
  "mozjs_lex_cases_8 = [mozjs_lex_148, mozjs_lex_149, mozjs_lex_150, mozjs_lex_151,
    mozjs_lex_152, mozjs_lex_153, mozjs_lex_154, mozjs_lex_155, mozjs_lex_156, mozjs_lex_157,
    mozjs_lex_158, mozjs_lex_159, mozjs_lex_160, mozjs_lex_161, mozjs_lex_162, mozjs_lex_163,
    mozjs_lex_164, mozjs_lex_165, mozjs_lex_166, mozjs_lex_167, mozjs_lex_168, mozjs_lex_169,
    mozjs_lex_170, mozjs_lex_171, mozjs_lex_172, mozjs_lex_173, mozjs_lex_174, mozjs_lex_175,
    mozjs_lex_176, mozjs_lex_177, mozjs_lex_178, mozjs_lex_179]"

definition mozjs_lex_cases_9 :: "(bool \<Rightarrow> codepoint \<Rightarrow> lex_case) list" where
  "mozjs_lex_cases_9 = [mozjs_lex_180, mozjs_lex_181, mozjs_lex_182, mozjs_lex_183,
    mozjs_lex_184, mozjs_lex_185, mozjs_lex_186, mozjs_lex_187, mozjs_lex_188, mozjs_lex_189,
    mozjs_lex_190, mozjs_lex_191, mozjs_lex_192, mozjs_lex_193, mozjs_lex_194, mozjs_lex_195,
    mozjs_lex_196, mozjs_lex_197, mozjs_lex_198, mozjs_lex_199, mozjs_lex_200, mozjs_lex_201,
    mozjs_lex_202, mozjs_lex_203, mozjs_lex_204, mozjs_lex_205, mozjs_lex_206, mozjs_lex_207,
    mozjs_lex_208, mozjs_lex_209, mozjs_lex_210, mozjs_lex_211, mozjs_lex_212, mozjs_lex_213,
    mozjs_lex_214]"

definition mozjs_lex_cases_10 :: "(bool \<Rightarrow> codepoint \<Rightarrow> lex_case) list" where
  "mozjs_lex_cases_10 = [mozjs_lex_215, mozjs_lex_216, mozjs_lex_217, mozjs_lex_218,
    mozjs_lex_219, mozjs_lex_220, mozjs_lex_221, mozjs_lex_222, mozjs_lex_223, mozjs_lex_224,
    mozjs_lex_225, mozjs_lex_226, mozjs_lex_227, mozjs_lex_228, mozjs_lex_229, mozjs_lex_230,
    mozjs_lex_231, mozjs_lex_232, mozjs_lex_233, mozjs_lex_234, mozjs_lex_235, mozjs_lex_236,
    mozjs_lex_237, mozjs_lex_238, mozjs_lex_239, mozjs_lex_240, mozjs_lex_241, mozjs_lex_242,
    mozjs_lex_243, mozjs_lex_244, mozjs_lex_245, mozjs_lex_246]"

definition mozjs_lex_cases_11 :: "(bool \<Rightarrow> codepoint \<Rightarrow> lex_case) list" where
  "mozjs_lex_cases_11 = [mozjs_lex_247, mozjs_lex_248, mozjs_lex_249, mozjs_lex_250,
    mozjs_lex_251, mozjs_lex_252, mozjs_lex_253, mozjs_lex_254, mozjs_lex_255, mozjs_lex_256,
    mozjs_lex_257, mozjs_lex_258, mozjs_lex_259, mozjs_lex_260, mozjs_lex_261, mozjs_lex_262,
    mozjs_lex_263, mozjs_lex_264, mozjs_lex_265, mozjs_lex_266, mozjs_lex_267]"

definition mozjs_lex_cases_12 :: "(bool \<Rightarrow> codepoint \<Rightarrow> lex_case) list" where
  "mozjs_lex_cases_12 = [mozjs_lex_268, mozjs_lex_269, mozjs_lex_270, mozjs_lex_271,
    mozjs_lex_272, mozjs_lex_273, mozjs_lex_274, mozjs_lex_275, mozjs_lex_276, mozjs_lex_277,
    mozjs_lex_278, mozjs_lex_279, mozjs_lex_280, mozjs_lex_281, mozjs_lex_282, mozjs_lex_283,
    mozjs_lex_284, mozjs_lex_285, mozjs_lex_286, mozjs_lex_287, mozjs_lex_288]"

definition mozjs_lex_cases_13 :: "(bool \<Rightarrow> codepoint \<Rightarrow> lex_case) list" where
  "mozjs_lex_cases_13 = [mozjs_lex_289, mozjs_lex_290, mozjs_lex_291, mozjs_lex_292,
    mozjs_lex_293]"

definition mozjs_lex_cases :: "(bool \<Rightarrow> codepoint \<Rightarrow> lex_case) list" where
  "mozjs_lex_cases = mozjs_lex_cases_0 @ mozjs_lex_cases_1 @ mozjs_lex_cases_2 @
    mozjs_lex_cases_3 @ mozjs_lex_cases_4 @ mozjs_lex_cases_5 @ mozjs_lex_cases_6 @
    mozjs_lex_cases_7 @ mozjs_lex_cases_8 @ mozjs_lex_cases_9 @ mozjs_lex_cases_10 @
    mozjs_lex_cases_11 @ mozjs_lex_cases_12 @ mozjs_lex_cases_13"

lemma mozjs_lex_list:
  "mozjs_lex_cases = [mozjs_lex_0, mozjs_lex_1, mozjs_lex_2, mozjs_lex_3, mozjs_lex_4,
    mozjs_lex_5, mozjs_lex_6, mozjs_lex_7, mozjs_lex_8, mozjs_lex_9, mozjs_lex_10, mozjs_lex_11,
    mozjs_lex_12, mozjs_lex_13, mozjs_lex_14, mozjs_lex_15, mozjs_lex_16, mozjs_lex_17,
    mozjs_lex_18, mozjs_lex_19, mozjs_lex_20, mozjs_lex_21, mozjs_lex_22, mozjs_lex_23,
    mozjs_lex_24, mozjs_lex_25, mozjs_lex_26, mozjs_lex_27, mozjs_lex_28, mozjs_lex_29,
    mozjs_lex_30, mozjs_lex_31, mozjs_lex_32, mozjs_lex_33, mozjs_lex_34, mozjs_lex_35,
    mozjs_lex_36, mozjs_lex_37, mozjs_lex_38, mozjs_lex_39, mozjs_lex_40, mozjs_lex_41,
    mozjs_lex_42, mozjs_lex_43, mozjs_lex_44, mozjs_lex_45, mozjs_lex_46, mozjs_lex_47,
    mozjs_lex_48, mozjs_lex_49, mozjs_lex_50, mozjs_lex_51, mozjs_lex_52, mozjs_lex_53,
    mozjs_lex_54, mozjs_lex_55, mozjs_lex_56, mozjs_lex_57, mozjs_lex_58, mozjs_lex_59,
    mozjs_lex_60, mozjs_lex_61, mozjs_lex_62, mozjs_lex_63, mozjs_lex_64, mozjs_lex_65,
    mozjs_lex_66, mozjs_lex_67, mozjs_lex_68, mozjs_lex_69, mozjs_lex_70, mozjs_lex_71,
    mozjs_lex_72, mozjs_lex_73, mozjs_lex_74, mozjs_lex_75, mozjs_lex_76, mozjs_lex_77,
    mozjs_lex_78, mozjs_lex_79, mozjs_lex_80, mozjs_lex_81, mozjs_lex_82, mozjs_lex_83,
    mozjs_lex_84, mozjs_lex_85, mozjs_lex_86, mozjs_lex_87, mozjs_lex_88, mozjs_lex_89,
    mozjs_lex_90, mozjs_lex_91, mozjs_lex_92, mozjs_lex_93, mozjs_lex_94, mozjs_lex_95,
    mozjs_lex_96, mozjs_lex_97, mozjs_lex_98, mozjs_lex_99, mozjs_lex_100, mozjs_lex_101,
    mozjs_lex_102, mozjs_lex_103, mozjs_lex_104, mozjs_lex_105, mozjs_lex_106, mozjs_lex_107,
    mozjs_lex_108, mozjs_lex_109, mozjs_lex_110, mozjs_lex_111, mozjs_lex_112, mozjs_lex_113,
    mozjs_lex_114, mozjs_lex_115, mozjs_lex_116, mozjs_lex_117, mozjs_lex_118, mozjs_lex_119,
    mozjs_lex_120, mozjs_lex_121, mozjs_lex_122, mozjs_lex_123, mozjs_lex_124, mozjs_lex_125,
    mozjs_lex_126, mozjs_lex_127, mozjs_lex_128, mozjs_lex_129, mozjs_lex_130, mozjs_lex_131,
    mozjs_lex_132, mozjs_lex_133, mozjs_lex_134, mozjs_lex_135, mozjs_lex_136, mozjs_lex_137,
    mozjs_lex_138, mozjs_lex_139, mozjs_lex_140, mozjs_lex_141, mozjs_lex_142, mozjs_lex_143,
    mozjs_lex_144, mozjs_lex_145, mozjs_lex_146, mozjs_lex_147, mozjs_lex_148, mozjs_lex_149,
    mozjs_lex_150, mozjs_lex_151, mozjs_lex_152, mozjs_lex_153, mozjs_lex_154, mozjs_lex_155,
    mozjs_lex_156, mozjs_lex_157, mozjs_lex_158, mozjs_lex_159, mozjs_lex_160, mozjs_lex_161,
    mozjs_lex_162, mozjs_lex_163, mozjs_lex_164, mozjs_lex_165, mozjs_lex_166, mozjs_lex_167,
    mozjs_lex_168, mozjs_lex_169, mozjs_lex_170, mozjs_lex_171, mozjs_lex_172, mozjs_lex_173,
    mozjs_lex_174, mozjs_lex_175, mozjs_lex_176, mozjs_lex_177, mozjs_lex_178, mozjs_lex_179,
    mozjs_lex_180, mozjs_lex_181, mozjs_lex_182, mozjs_lex_183, mozjs_lex_184, mozjs_lex_185,
    mozjs_lex_186, mozjs_lex_187, mozjs_lex_188, mozjs_lex_189, mozjs_lex_190, mozjs_lex_191,
    mozjs_lex_192, mozjs_lex_193, mozjs_lex_194, mozjs_lex_195, mozjs_lex_196, mozjs_lex_197,
    mozjs_lex_198, mozjs_lex_199, mozjs_lex_200, mozjs_lex_201, mozjs_lex_202, mozjs_lex_203,
    mozjs_lex_204, mozjs_lex_205, mozjs_lex_206, mozjs_lex_207, mozjs_lex_208, mozjs_lex_209,
    mozjs_lex_210, mozjs_lex_211, mozjs_lex_212, mozjs_lex_213, mozjs_lex_214, mozjs_lex_215,
    mozjs_lex_216, mozjs_lex_217, mozjs_lex_218, mozjs_lex_219, mozjs_lex_220, mozjs_lex_221,
    mozjs_lex_222, mozjs_lex_223, mozjs_lex_224, mozjs_lex_225, mozjs_lex_226, mozjs_lex_227,
    mozjs_lex_228, mozjs_lex_229, mozjs_lex_230, mozjs_lex_231, mozjs_lex_232, mozjs_lex_233,
    mozjs_lex_234, mozjs_lex_235, mozjs_lex_236, mozjs_lex_237, mozjs_lex_238, mozjs_lex_239,
    mozjs_lex_240, mozjs_lex_241, mozjs_lex_242, mozjs_lex_243, mozjs_lex_244, mozjs_lex_245,
    mozjs_lex_246, mozjs_lex_247, mozjs_lex_248, mozjs_lex_249, mozjs_lex_250, mozjs_lex_251,
    mozjs_lex_252, mozjs_lex_253, mozjs_lex_254, mozjs_lex_255, mozjs_lex_256, mozjs_lex_257,
    mozjs_lex_258, mozjs_lex_259, mozjs_lex_260, mozjs_lex_261, mozjs_lex_262, mozjs_lex_263,
    mozjs_lex_264, mozjs_lex_265, mozjs_lex_266, mozjs_lex_267, mozjs_lex_268, mozjs_lex_269,
    mozjs_lex_270, mozjs_lex_271, mozjs_lex_272, mozjs_lex_273, mozjs_lex_274, mozjs_lex_275,
    mozjs_lex_276, mozjs_lex_277, mozjs_lex_278, mozjs_lex_279, mozjs_lex_280, mozjs_lex_281,
    mozjs_lex_282, mozjs_lex_283, mozjs_lex_284, mozjs_lex_285, mozjs_lex_286, mozjs_lex_287,
    mozjs_lex_288, mozjs_lex_289, mozjs_lex_290, mozjs_lex_291, mozjs_lex_292, mozjs_lex_293]"
  by (simp add: mozjs_lex_cases_def mozjs_lex_cases_0_def mozjs_lex_cases_1_def
    mozjs_lex_cases_2_def mozjs_lex_cases_3_def mozjs_lex_cases_4_def mozjs_lex_cases_5_def
    mozjs_lex_cases_6_def mozjs_lex_cases_7_def mozjs_lex_cases_8_def mozjs_lex_cases_9_def
    mozjs_lex_cases_10_def mozjs_lex_cases_11_def mozjs_lex_cases_12_def mozjs_lex_cases_13_def)

definition mozjs_ts_lex :: lex_switch where
  "mozjs_ts_lex state eof la =
     (if state < 294 then Some ((mozjs_lex_cases ! state) eof la) else None)"

lemmas mozjs_lex_defs =
  mozjs_lex_0_def mozjs_lex_1_def mozjs_lex_2_def mozjs_lex_3_def mozjs_lex_4_def mozjs_lex_5_def
    mozjs_lex_6_def mozjs_lex_7_def mozjs_lex_8_def mozjs_lex_9_def mozjs_lex_10_def
    mozjs_lex_11_def mozjs_lex_12_def mozjs_lex_13_def mozjs_lex_14_def mozjs_lex_15_def
    mozjs_lex_16_def mozjs_lex_17_def mozjs_lex_18_def mozjs_lex_19_def mozjs_lex_20_def
    mozjs_lex_21_def mozjs_lex_22_def mozjs_lex_23_def mozjs_lex_24_def mozjs_lex_25_def
    mozjs_lex_26_def mozjs_lex_27_def mozjs_lex_28_def mozjs_lex_29_def mozjs_lex_30_def
    mozjs_lex_31_def mozjs_lex_32_def mozjs_lex_33_def mozjs_lex_34_def mozjs_lex_35_def
    mozjs_lex_36_def mozjs_lex_37_def mozjs_lex_38_def mozjs_lex_39_def mozjs_lex_40_def
    mozjs_lex_41_def mozjs_lex_42_def mozjs_lex_43_def mozjs_lex_44_def mozjs_lex_45_def
    mozjs_lex_46_def mozjs_lex_47_def mozjs_lex_48_def mozjs_lex_49_def mozjs_lex_50_def
    mozjs_lex_51_def mozjs_lex_52_def mozjs_lex_53_def mozjs_lex_54_def mozjs_lex_55_def
    mozjs_lex_56_def mozjs_lex_57_def mozjs_lex_58_def mozjs_lex_59_def mozjs_lex_60_def
    mozjs_lex_61_def mozjs_lex_62_def mozjs_lex_63_def mozjs_lex_64_def mozjs_lex_65_def
    mozjs_lex_66_def mozjs_lex_67_def mozjs_lex_68_def mozjs_lex_69_def mozjs_lex_70_def
    mozjs_lex_71_def mozjs_lex_72_def mozjs_lex_73_def mozjs_lex_74_def mozjs_lex_75_def
    mozjs_lex_76_def mozjs_lex_77_def mozjs_lex_78_def mozjs_lex_79_def mozjs_lex_80_def
    mozjs_lex_81_def mozjs_lex_82_def mozjs_lex_83_def mozjs_lex_84_def mozjs_lex_85_def
    mozjs_lex_86_def mozjs_lex_87_def mozjs_lex_88_def mozjs_lex_89_def mozjs_lex_90_def
    mozjs_lex_91_def mozjs_lex_92_def mozjs_lex_93_def mozjs_lex_94_def mozjs_lex_95_def
    mozjs_lex_96_def mozjs_lex_97_def mozjs_lex_98_def mozjs_lex_99_def mozjs_lex_100_def
    mozjs_lex_101_def mozjs_lex_102_def mozjs_lex_103_def mozjs_lex_104_def mozjs_lex_105_def
    mozjs_lex_106_def mozjs_lex_107_def mozjs_lex_108_def mozjs_lex_109_def mozjs_lex_110_def
    mozjs_lex_111_def mozjs_lex_112_def mozjs_lex_113_def mozjs_lex_114_def mozjs_lex_115_def
    mozjs_lex_116_def mozjs_lex_117_def mozjs_lex_118_def mozjs_lex_119_def mozjs_lex_120_def
    mozjs_lex_121_def mozjs_lex_122_def mozjs_lex_123_def mozjs_lex_124_def mozjs_lex_125_def
    mozjs_lex_126_def mozjs_lex_127_def mozjs_lex_128_def mozjs_lex_129_def mozjs_lex_130_def
    mozjs_lex_131_def mozjs_lex_132_def mozjs_lex_133_def mozjs_lex_134_def mozjs_lex_135_def
    mozjs_lex_136_def mozjs_lex_137_def mozjs_lex_138_def mozjs_lex_139_def mozjs_lex_140_def
    mozjs_lex_141_def mozjs_lex_142_def mozjs_lex_143_def mozjs_lex_144_def mozjs_lex_145_def
    mozjs_lex_146_def mozjs_lex_147_def mozjs_lex_148_def mozjs_lex_149_def mozjs_lex_150_def
    mozjs_lex_151_def mozjs_lex_152_def mozjs_lex_153_def mozjs_lex_154_def mozjs_lex_155_def
    mozjs_lex_156_def mozjs_lex_157_def mozjs_lex_158_def mozjs_lex_159_def mozjs_lex_160_def
    mozjs_lex_161_def mozjs_lex_162_def mozjs_lex_163_def mozjs_lex_164_def mozjs_lex_165_def
    mozjs_lex_166_def mozjs_lex_167_def mozjs_lex_168_def mozjs_lex_169_def mozjs_lex_170_def
    mozjs_lex_171_def mozjs_lex_172_def mozjs_lex_173_def mozjs_lex_174_def mozjs_lex_175_def
    mozjs_lex_176_def mozjs_lex_177_def mozjs_lex_178_def mozjs_lex_179_def mozjs_lex_180_def
    mozjs_lex_181_def mozjs_lex_182_def mozjs_lex_183_def mozjs_lex_184_def mozjs_lex_185_def
    mozjs_lex_186_def mozjs_lex_187_def mozjs_lex_188_def mozjs_lex_189_def mozjs_lex_190_def
    mozjs_lex_191_def mozjs_lex_192_def mozjs_lex_193_def mozjs_lex_194_def mozjs_lex_195_def
    mozjs_lex_196_def mozjs_lex_197_def mozjs_lex_198_def mozjs_lex_199_def mozjs_lex_200_def
    mozjs_lex_201_def mozjs_lex_202_def mozjs_lex_203_def mozjs_lex_204_def mozjs_lex_205_def
    mozjs_lex_206_def mozjs_lex_207_def mozjs_lex_208_def mozjs_lex_209_def mozjs_lex_210_def
    mozjs_lex_211_def mozjs_lex_212_def mozjs_lex_213_def mozjs_lex_214_def mozjs_lex_215_def
    mozjs_lex_216_def mozjs_lex_217_def mozjs_lex_218_def mozjs_lex_219_def mozjs_lex_220_def
    mozjs_lex_221_def mozjs_lex_222_def mozjs_lex_223_def mozjs_lex_224_def mozjs_lex_225_def
    mozjs_lex_226_def mozjs_lex_227_def mozjs_lex_228_def mozjs_lex_229_def mozjs_lex_230_def
    mozjs_lex_231_def mozjs_lex_232_def mozjs_lex_233_def mozjs_lex_234_def mozjs_lex_235_def
    mozjs_lex_236_def mozjs_lex_237_def mozjs_lex_238_def mozjs_lex_239_def mozjs_lex_240_def
    mozjs_lex_241_def mozjs_lex_242_def mozjs_lex_243_def mozjs_lex_244_def mozjs_lex_245_def
    mozjs_lex_246_def mozjs_lex_247_def mozjs_lex_248_def mozjs_lex_249_def mozjs_lex_250_def
    mozjs_lex_251_def mozjs_lex_252_def mozjs_lex_253_def mozjs_lex_254_def mozjs_lex_255_def
    mozjs_lex_256_def mozjs_lex_257_def mozjs_lex_258_def mozjs_lex_259_def mozjs_lex_260_def
    mozjs_lex_261_def mozjs_lex_262_def mozjs_lex_263_def mozjs_lex_264_def mozjs_lex_265_def
    mozjs_lex_266_def mozjs_lex_267_def mozjs_lex_268_def mozjs_lex_269_def mozjs_lex_270_def
    mozjs_lex_271_def mozjs_lex_272_def mozjs_lex_273_def mozjs_lex_274_def mozjs_lex_275_def
    mozjs_lex_276_def mozjs_lex_277_def mozjs_lex_278_def mozjs_lex_279_def mozjs_lex_280_def
    mozjs_lex_281_def mozjs_lex_282_def mozjs_lex_283_def mozjs_lex_284_def mozjs_lex_285_def
    mozjs_lex_286_def mozjs_lex_287_def mozjs_lex_288_def mozjs_lex_289_def mozjs_lex_290_def
    mozjs_lex_291_def mozjs_lex_292_def mozjs_lex_293_def

section \<open>The cases of the keyword lexer\<close>

definition mozjs_kw_0 :: "bool \<Rightarrow> codepoint \<Rightarrow> lex_case" where
  "mozjs_kw_0 eof la = (None,
      case ADVANCE_MAP [(CH_a, 1), (CH_b, 2), (CH_c, 3), (CH_d, 4), (CH_e, 5), (CH_f, 6), (CH_g,
        7), (CH_i, 8), (CH_l, 9), (CH_m, 10), (CH_n, 11), (CH_o, 12), (CH_r, 13), (CH_s, 14),
        (CH_t, 15), (CH_u, 16), (CH_v, 17), (CH_w, 18), (CH_y, 19)] la of Some st \<Rightarrow>
        ADVANCE st | None \<Rightarrow> (
      if mozjs_in_extras la then SKIP 0 else END_STATE))"

definition mozjs_kw_1 :: "bool \<Rightarrow> codepoint \<Rightarrow> lex_case" where
  "mozjs_kw_1 eof la = (None,
      if la = CH_s then ADVANCE 20 else
      if la = CH_w then ADVANCE 21 else END_STATE)"

definition mozjs_kw_2 :: "bool \<Rightarrow> codepoint \<Rightarrow> lex_case" where
  "mozjs_kw_2 eof la = (None,
      if la = CH_r then ADVANCE 22 else END_STATE)"

definition mozjs_kw_3 :: "bool \<Rightarrow> codepoint \<Rightarrow> lex_case" where
  "mozjs_kw_3 eof la = (None,
      if la = CH_a then ADVANCE 23 else
      if la = CH_l then ADVANCE 24 else
      if la = CH_o then ADVANCE 25 else END_STATE)"

definition mozjs_kw_4 :: "bool \<Rightarrow> codepoint \<Rightarrow> lex_case" where
  "mozjs_kw_4 eof la = (None,
      if la = CH_e then ADVANCE 26 else
      if la = CH_o then ADVANCE 27 else END_STATE)"

definition mozjs_kw_5 :: "bool \<Rightarrow> codepoint \<Rightarrow> lex_case" where
  "mozjs_kw_5 eof la = (None,
      if la = CH_l then ADVANCE 28 else
      if la = CH_x then ADVANCE 29 else END_STATE)"

definition mozjs_kw_6 :: "bool \<Rightarrow> codepoint \<Rightarrow> lex_case" where
  "mozjs_kw_6 eof la = (None,
      if la = CH_a then ADVANCE 30 else
      if la = CH_i then ADVANCE 31 else
      if la = CH_o then ADVANCE 32 else
      if la = CH_r then ADVANCE 33 else
      if la = CH_u then ADVANCE 34 else END_STATE)"

definition mozjs_kw_7 :: "bool \<Rightarrow> codepoint \<Rightarrow> lex_case" where
  "mozjs_kw_7 eof la = (None,
      if la = CH_e then ADVANCE 35 else END_STATE)"

definition mozjs_kw_8 :: "bool \<Rightarrow> codepoint \<Rightarrow> lex_case" where
  "mozjs_kw_8 eof la = (None,
      if la = CH_f then ADVANCE 36 else
      if la = CH_m then ADVANCE 37 else
      if la = CH_n then ADVANCE 38 else END_STATE)"

definition mozjs_kw_9 :: "bool \<Rightarrow> codepoint \<Rightarrow> lex_case" where
  "mozjs_kw_9 eof la = (None,
      if la = CH_e then ADVANCE 39 else END_STATE)"

definition mozjs_kw_10 :: "bool \<Rightarrow> codepoint \<Rightarrow> lex_case" where
  "mozjs_kw_10 eof la = (None,
      if la = CH_e then ADVANCE 40 else END_STATE)"

definition mozjs_kw_11 :: "bool \<Rightarrow> codepoint \<Rightarrow> lex_case" where
  "mozjs_kw_11 eof la = (None,
      if la = CH_e then ADVANCE 41 else
      if la = CH_u then ADVANCE 42 else END_STATE)"

definition mozjs_kw_12 :: "bool \<Rightarrow> codepoint \<Rightarrow> lex_case" where
  "mozjs_kw_12 eof la = (None,
      if la = CH_f then ADVANCE 43 else END_STATE)"

definition mozjs_kw_13 :: "bool \<Rightarrow> codepoint \<Rightarrow> lex_case" where
  "mozjs_kw_13 eof la = (None,
      if la = CH_e then ADVANCE 44 else END_STATE)"

definition mozjs_kw_14 :: "bool \<Rightarrow> codepoint \<Rightarrow> lex_case" where
  "mozjs_kw_14 eof la = (None,
      if la = CH_e then ADVANCE 45 else
      if la = CH_t then ADVANCE 46 else
      if la = CH_u then ADVANCE 47 else
      if la = CH_w then ADVANCE 48 else END_STATE)"

definition mozjs_kw_15 :: "bool \<Rightarrow> codepoint \<Rightarrow> lex_case" where
  "mozjs_kw_15 eof la = (None,
      if la = CH_a then ADVANCE 49 else
      if la = CH_h then ADVANCE 50 else
      if la = CH_r then ADVANCE 51 else
      if la = CH_y then ADVANCE 52 else END_STATE)"

definition mozjs_kw_16 :: "bool \<Rightarrow> codepoint \<Rightarrow> lex_case" where
  "mozjs_kw_16 eof la = (None,
      if la = CH_n then ADVANCE 53 else
      if la = CH_s then ADVANCE 54 else END_STATE)"

definition mozjs_kw_17 :: "bool \<Rightarrow> codepoint \<Rightarrow> lex_case" where
  "mozjs_kw_17 eof la = (None,
      if la = CH_a then ADVANCE 55 else
      if la = CH_o then ADVANCE 56 else END_STATE)"

definition mozjs_kw_18 :: "bool \<Rightarrow> codepoint \<Rightarrow> lex_case" where
  "mozjs_kw_18 eof la = (None,
      if la = CH_h then ADVANCE 57 else
      if la = CH_i then ADVANCE 58 else END_STATE)"

definition mozjs_kw_19 :: "bool \<Rightarrow> codepoint \<Rightarrow> lex_case" where
  "mozjs_kw_19 eof la = (None,
      if la = CH_i then ADVANCE 59 else END_STATE)"

definition mozjs_kw_20 :: "bool \<Rightarrow> codepoint \<Rightarrow> lex_case" where
  "mozjs_kw_20 eof la = (Some mozjs_anon_sym_as,
      if la = CH_y then ADVANCE 60 else END_STATE)"

definition mozjs_kw_21 :: "bool \<Rightarrow> codepoint \<Rightarrow> lex_case" where
  "mozjs_kw_21 eof la = (None,
      if la = CH_a then ADVANCE 61 else END_STATE)"

definition mozjs_kw_22 :: "bool \<Rightarrow> codepoint \<Rightarrow> lex_case" where
  "mozjs_kw_22 eof la = (None,
      if la = CH_e then ADVANCE 62 else END_STATE)"

definition mozjs_kw_23 :: "bool \<Rightarrow> codepoint \<Rightarrow> lex_case" where
  "mozjs_kw_23 eof la = (None,
      if la = CH_s then ADVANCE 63 else
      if la = CH_t then ADVANCE 64 else END_STATE)"

definition mozjs_kw_24 :: "bool \<Rightarrow> codepoint \<Rightarrow> lex_case" where
  "mozjs_kw_24 eof la = (None,
      if la = CH_a then ADVANCE 65 else END_STATE)"

definition mozjs_kw_25 :: "bool \<Rightarrow> codepoint \<Rightarrow> lex_case" where
  "mozjs_kw_25 eof la = (None,
      if la = CH_n then ADVANCE 66 else END_STATE)"

definition mozjs_kw_26 :: "bool \<Rightarrow> codepoint \<Rightarrow> lex_case" where
  "mozjs_kw_26 eof la = (None,
      if la = CH_b then ADVANCE 67 else
      if la = CH_f then ADVANCE 68 else
      if la = CH_l then ADVANCE 69 else END_STATE)"

definition mozjs_kw_27 :: "bool \<Rightarrow> codepoint \<Rightarrow> lex_case" where
  "mozjs_kw_27 eof la = (Some mozjs_anon_sym_do, END_STATE)"

definition mozjs_kw_28 :: "bool \<Rightarrow> codepoint \<Rightarrow> lex_case" where
  "mozjs_kw_28 eof la = (None,
      if la = CH_s then ADVANCE 70 else END_STATE)"

definition mozjs_kw_29 :: "bool \<Rightarrow> codepoint \<Rightarrow> lex_case" where
  "mozjs_kw_29 eof la = (None,
      if la = CH_p then ADVANCE 71 else
      if la = CH_t then ADVANCE 72 else END_STATE)"

definition mozjs_kw_30 :: "bool \<Rightarrow> codepoint \<Rightarrow> lex_case" where
  "mozjs_kw_30 eof la = (None,
      if la = CH_l then ADVANCE 73 else END_STATE)"

definition mozjs_kw_31 :: "bool \<Rightarrow> codepoint \<Rightarrow> lex_case" where
  "mozjs_kw_31 eof la = (None,
      if la = CH_n then ADVANCE 74 else END_STATE)"

definition mozjs_kw_32 :: "bool \<Rightarrow> codepoint \<Rightarrow> lex_case" where
  "mozjs_kw_32 eof la = (None,
      if la = CH_r then ADVANCE 75 else END_STATE)"

definition mozjs_kw_33 :: "bool \<Rightarrow> codepoint \<Rightarrow> lex_case" where
  "mozjs_kw_33 eof la = (None,
      if la = CH_o then ADVANCE 76 else END_STATE)"

definition mozjs_kw_34 :: "bool \<Rightarrow> codepoint \<Rightarrow> lex_case" where
  "mozjs_kw_34 eof la = (None,
      if la = CH_n then ADVANCE 77 else END_STATE)"

definition mozjs_kw_35 :: "bool \<Rightarrow> codepoint \<Rightarrow> lex_case" where
  "mozjs_kw_35 eof la = (None,
      if la = CH_t then ADVANCE 78 else END_STATE)"

definition mozjs_kw_36 :: "bool \<Rightarrow> codepoint \<Rightarrow> lex_case" where
  "mozjs_kw_36 eof la = (Some mozjs_anon_sym_if, END_STATE)"

definition mozjs_kw_37 :: "bool \<Rightarrow> codepoint \<Rightarrow> lex_case" where
  "mozjs_kw_37 eof la = (None,
      if la = CH_p then ADVANCE 79 else END_STATE)"

definition mozjs_kw_38 :: "bool \<Rightarrow> codepoint \<Rightarrow> lex_case" where
  "mozjs_kw_38 eof la = (Some mozjs_anon_sym_in,
      if la = CH_s then ADVANCE 80 else END_STATE)"

definition mozjs_kw_39 :: "bool \<Rightarrow> codepoint \<Rightarrow> lex_case" where
  "mozjs_kw_39 eof la = (None,
      if la = CH_t then ADVANCE 81 else END_STATE)"

definition mozjs_kw_40 :: "bool \<Rightarrow> codepoint \<Rightarrow> lex_case" where
  "mozjs_kw_40 eof la = (None,
      if la = CH_t then ADVANCE 82 else END_STATE)"

definition mozjs_kw_41 :: "bool \<Rightarrow> codepoint \<Rightarrow> lex_case" where
  "mozjs_kw_41 eof la = (None,
      if la = CH_w then ADVANCE 83 else END_STATE)"

definition mozjs_kw_42 :: "bool \<Rightarrow> codepoint \<Rightarrow> lex_case" where
  "mozjs_kw_42 eof la = (None,
      if la = CH_l then ADVANCE 84 else END_STATE)"

definition mozjs_kw_43 :: "bool \<Rightarrow> codepoint \<Rightarrow> lex_case" where
  "mozjs_kw_43 eof la = (Some mozjs_anon_sym_of, END_STATE)"

definition mozjs_kw_44 :: "bool \<Rightarrow> codepoint \<Rightarrow> lex_case" where
  "mozjs_kw_44 eof la = (None,
      if la = CH_t then ADVANCE 85 else END_STATE)"

definition mozjs_kw_45 :: "bool \<Rightarrow> codepoint \<Rightarrow> lex_case" where
  "mozjs_kw_45 eof la = (None,
      if la = CH_t then ADVANCE 86 else END_STATE)"

definition mozjs_kw_46 :: "bool \<Rightarrow> codepoint \<Rightarrow> lex_case" where
  "mozjs_kw_46 eof la = (None,
      if la = CH_a then ADVANCE 87 else END_STATE)"

definition mozjs_kw_47 :: "bool \<Rightarrow> codepoint \<Rightarrow> lex_case" where
  "mozjs_kw_47 eof la = (None,
      if la = CH_p then ADVANCE 88 else END_STATE)"

definition mozjs_kw_48 :: "bool \<Rightarrow> codepoint \<Rightarrow> lex_case" where
  "mozjs_kw_48 eof la = (None,
      if la = CH_i then ADVANCE 89 else END_STATE)"

definition mozjs_kw_49 :: "bool \<Rightarrow> codepoint \<Rightarrow> lex_case" where
  "mozjs_kw_49 eof la = (None,
      if la = CH_r then ADVANCE 90 else END_STATE)"

definition mozjs_kw_50 :: "bool \<Rightarrow> codepoint \<Rightarrow> lex_case" where
  "mozjs_kw_50 eof la = (None,
      if la = CH_i then ADVANCE 91 else
      if la = CH_r then ADVANCE 92 else END_STATE)"

definition mozjs_kw_51 :: "bool \<Rightarrow> codepoint \<Rightarrow> lex_case" where
  "mozjs_kw_51 eof la = (None,
      if la = CH_u then ADVANCE 93 else
      if la = CH_y then ADVANCE 94 else END_STATE)"

definition mozjs_kw_52 :: "bool \<Rightarrow> codepoint \<Rightarrow> lex_case" where
  "mozjs_kw_52 eof la = (None,
      if la = CH_p then ADVANCE 95 else END_STATE)"

definition mozjs_kw_53 :: "bool \<Rightarrow> codepoint \<Rightarrow> lex_case" where
  "mozjs_kw_53 eof la = (None,
      if la = CH_d then ADVANCE 96 else END_STATE)"

definition mozjs_kw_54 :: "bool \<Rightarrow> codepoint \<Rightarrow> lex_case" where
  "mozjs_kw_54 eof la = (None,
      if la = CH_i then ADVANCE 97 else END_STATE)"

definition mozjs_kw_55 :: "bool \<Rightarrow> codepoint \<Rightarrow> lex_case" where
  "mozjs_kw_55 eof la = (None,
      if la = CH_r then ADVANCE 98 else END_STATE)"

definition mozjs_kw_56 :: "bool \<Rightarrow> codepoint \<Rightarrow> lex_case" where
  "mozjs_kw_56 eof la = (None,
      if la = CH_i then ADVANCE 99 else END_STATE)"

definition mozjs_kw_57 :: "bool \<Rightarrow> codepoint \<Rightarrow> lex_case" where
  "mozjs_kw_57 eof la = (None,
      if la = CH_i then ADVANCE 100 else END_STATE)"

definition mozjs_kw_58 :: "bool \<Rightarrow> codepoint \<Rightarrow> lex_case" where
  "mozjs_kw_58 eof la = (None,
      if la = CH_t then ADVANCE 101 else END_STATE)"

definition mozjs_kw_59 :: "bool \<Rightarrow> codepoint \<Rightarrow> lex_case" where
  "mozjs_kw_59 eof la = (None,
      if la = CH_e then ADVANCE 102 else END_STATE)"

definition mozjs_kw_60 :: "bool \<Rightarrow> codepoint \<Rightarrow> lex_case" where
  "mozjs_kw_60 eof la = (None,
      if la = CH_n then ADVANCE 103 else END_STATE)"

definition mozjs_kw_61 :: "bool \<Rightarrow> codepoint \<Rightarrow> lex_case" where
  "mozjs_kw_61 eof la = (None,
      if la = CH_i then ADVANCE 104 else END_STATE)"

definition mozjs_kw_62 :: "bool \<Rightarrow> codepoint \<Rightarrow> lex_case" where
  "mozjs_kw_62 eof la = (None,
      if la = CH_a then ADVANCE 105 else END_STATE)"

definition mozjs_kw_63 :: "bool \<Rightarrow> codepoint \<Rightarrow> lex_case" where
  "mozjs_kw_63 eof la = (None,
      if la = CH_e then ADVANCE 106 else END_STATE)"

definition mozjs_kw_64 :: "bool \<Rightarrow> codepoint \<Rightarrow> lex_case" where
  "mozjs_kw_64 eof la = (None,
      if la = CH_c then ADVANCE 107 else END_STATE)"

definition mozjs_kw_65 :: "bool \<Rightarrow> codepoint \<Rightarrow> lex_case" where
  "mozjs_kw_65 eof la = (None,
      if la = CH_s then ADVANCE 108 else END_STATE)"

definition mozjs_kw_66 :: "bool \<Rightarrow> codepoint \<Rightarrow> lex_case" where
  "mozjs_kw_66 eof la = (None,
      if la = CH_s then ADVANCE 109 else
      if la = CH_t then ADVANCE 110 else END_STATE)"

definition mozjs_kw_67 :: "bool \<Rightarrow> codepoint \<Rightarrow> lex_case" where
  "mozjs_kw_67 eof la = (None,
      if la = CH_u then ADVANCE 111 else END_STATE)"

definition mozjs_kw_68 :: "bool \<Rightarrow> codepoint \<Rightarrow> lex_case" where
  "mozjs_kw_68 eof la = (None,
      if la = CH_a then ADVANCE 112 else END_STATE)"

definition mozjs_kw_69 :: "bool \<Rightarrow> codepoint \<Rightarrow> lex_case" where
  "mozjs_kw_69 eof la = (None,
      if la = CH_e then ADVANCE 113 else END_STATE)"

definition mozjs_kw_70 :: "bool \<Rightarrow> codepoint \<Rightarrow> lex_case" where
  "mozjs_kw_70 eof la = (None,
      if la = CH_e then ADVANCE 114 else END_STATE)"

definition mozjs_kw_71 :: "bool \<Rightarrow> codepoint \<Rightarrow> lex_case" where
  "mozjs_kw_71 eof la = (None,
      if la = CH_o then ADVANCE 115 else END_STATE)"

definition mozjs_kw_72 :: "bool \<Rightarrow> codepoint \<Rightarrow> lex_case" where
  "mozjs_kw_72 eof la = (None,
      if la = CH_e then ADVANCE 116 else END_STATE)"

definition mozjs_kw_73 :: "bool \<Rightarrow> codepoint \<Rightarrow> lex_case" where
  "mozjs_kw_73 eof la = (None,
      if la = CH_s then ADVANCE 117 else END_STATE)"

definition mozjs_kw_74 :: "bool \<Rightarrow> codepoint \<Rightarrow> lex_case" where
  "mozjs_kw_74 eof la = (None,
      if la = CH_a then ADVANCE 118 else END_STATE)"

definition mozjs_kw_75 :: "bool \<Rightarrow> codepoint \<Rightarrow> lex_case" where
  "mozjs_kw_75 eof la = (Some mozjs_anon_sym_for, END_STATE)"

definition mozjs_kw_76 :: "bool \<Rightarrow> codepoint \<Rightarrow> lex_case" where
  "mozjs_kw_76 eof la = (None,
      if la = CH_m then ADVANCE 119 else END_STATE)"

definition mozjs_kw_77 :: "bool \<Rightarrow> codepoint \<Rightarrow> lex_case" where
  "mozjs_kw_77 eof la = (None,
      if la = CH_c then ADVANCE 120 else END_STATE)"

definition mozjs_kw_78 :: "bool \<Rightarrow> codepoint \<Rightarrow> lex_case" where
  "mozjs_kw_78 eof la = (Some mozjs_anon_sym_get, END_STATE)"

definition mozjs_kw_79 :: "bool \<Rightarrow> codepoint \<Rightarrow> lex_case" where
  "mozjs_kw_79 eof la = (None,
      if la = CH_o then ADVANCE 121 else END_STATE)"

definition mozjs_kw_80 :: "bool \<Rightarrow> codepoint \<Rightarrow> lex_case" where
  "mozjs_kw_80 eof la = (None,
      if la = CH_t then ADVANCE 122 else END_STATE)"

definition mozjs_kw_81 :: "bool \<Rightarrow> codepoint \<Rightarrow> lex_case" where
  "mozjs_kw_81 eof la = (Some mozjs_anon_sym_let, END_STATE)"

definition mozjs_kw_82 :: "bool \<Rightarrow> codepoint \<Rightarrow> lex_case" where
  "mozjs_kw_82 eof la = (None,
      if la = CH_a then ADVANCE 123 else END_STATE)"

definition mozjs_kw_83 :: "bool \<Rightarrow> codepoint \<Rightarrow> lex_case" where
  "mozjs_kw_83 eof la = (Some mozjs_anon_sym_new, END_STATE)"

definition mozjs_kw_84 :: "bool \<Rightarrow> codepoint \<Rightarrow> lex_case" where
  "mozjs_kw_84 eof la = (None,
      if la = CH_l then ADVANCE 124 else END_STATE)"

definition mozjs_kw_85 :: "bool \<Rightarrow> codepoint \<Rightarrow> lex_case" where
  "mozjs_kw_85 eof la = (None,
      if la = CH_u then ADVANCE 125 else END_STATE)"

definition mozjs_kw_86 :: "bool \<Rightarrow> codepoint \<Rightarrow> lex_case" where
  "mozjs_kw_86 eof la = (Some mozjs_anon_sym_set, END_STATE)"

definition mozjs_kw_87 :: "bool \<Rightarrow> codepoint \<Rightarrow> lex_case" where
  "mozjs_kw_87 eof la = (None,
      if la = CH_t then ADVANCE 126 else END_STATE)"

definition mozjs_kw_88 :: "bool \<Rightarrow> codepoint \<Rightarrow> lex_case" where
  "mozjs_kw_88 eof la = (None,
      if la = CH_e then ADVANCE 127 else END_STATE)"

definition mozjs_kw_89 :: "bool \<Rightarrow> codepoint \<Rightarrow> lex_case" where
  "mozjs_kw_89 eof la = (None,
      if la = CH_t then ADVANCE 128 else END_STATE)"

definition mozjs_kw_90 :: "bool \<Rightarrow> codepoint \<Rightarrow> lex_case" where
  "mozjs_kw_90 eof la = (None,
      if la = CH_g then ADVANCE 129 else END_STATE)"

definition mozjs_kw_91 :: "bool \<Rightarrow> codepoint \<Rightarrow> lex_case" where
  "mozjs_kw_91 eof la = (None,
      if la = CH_s then ADVANCE 130 else END_STATE)"

definition mozjs_kw_92 :: "bool \<Rightarrow> codepoint \<Rightarrow> lex_case" where
  "mozjs_kw_92 eof la = (None,
      if la = CH_o then ADVANCE 131 else END_STATE)"

definition mozjs_kw_93 :: "bool \<Rightarrow> codepoint \<Rightarrow> lex_case" where
  "mozjs_kw_93 eof la = (None,
      if la = CH_e then ADVANCE 132 else END_STATE)"

definition mozjs_kw_94 :: "bool \<Rightarrow> codepoint \<Rightarrow> lex_case" where
  "mozjs_kw_94 eof la = (Some mozjs_anon_sym_try, END_STATE)"

definition mozjs_kw_95 :: "bool \<Rightarrow> codepoint \<Rightarrow> lex_case" where
  "mozjs_kw_95 eof la = (None,
      if la = CH_e then ADVANCE 133 else END_STATE)"

definition mozjs_kw_96 :: "bool \<Rightarrow> codepoint \<Rightarrow> lex_case" where
  "mozjs_kw_96 eof la = (None,
      if la = CH_e then ADVANCE 134 else END_STATE)"

definition mozjs_kw_97 :: "bool \<Rightarrow> codepoint \<Rightarrow> lex_case" where
  "mozjs_kw_97 eof la = (None,
      if la = CH_n then ADVANCE 135 else END_STATE)"

definition mozjs_kw_98 :: "bool \<Rightarrow> codepoint \<Rightarrow> lex_case" where
  "mozjs_kw_98 eof la = (Some mozjs_anon_sym_var, END_STATE)"

definition mozjs_kw_99 :: "bool \<Rightarrow> codepoint \<Rightarrow> lex_case" where
  "mozjs_kw_99 eof la = (None,
      if la = CH_d then ADVANCE 136 else END_STATE)"

definition mozjs_kw_100 :: "bool \<Rightarrow> codepoint \<Rightarrow> lex_case" where
  "mozjs_kw_100 eof la = (None,
      if la = CH_l then ADVANCE 137 else END_STATE)"

definition mozjs_kw_101 :: "bool \<Rightarrow> codepoint \<Rightarrow> lex_case" where
  "mozjs_kw_101 eof la = (None,
      if la = CH_h then ADVANCE 138 else END_STATE)"

definition mozjs_kw_102 :: "bool \<Rightarrow> codepoint \<Rightarrow> lex_case" where
  "mozjs_kw_102 eof la = (None,
      if la = CH_l then ADVANCE 139 else END_STATE)"

definition mozjs_kw_103 :: "bool \<Rightarrow> codepoint \<Rightarrow> lex_case" where
  "mozjs_kw_103 eof la = (None,
      if la = CH_c then ADVANCE 140 else END_STATE)"

definition mozjs_kw_104 :: "bool \<Rightarrow> codepoint \<Rightarrow> lex_case" where
  "mozjs_kw_104 eof la = (None,
      if la = CH_t then ADVANCE 141 else END_STATE)"

definition mozjs_kw_105 :: "bool \<Rightarrow> codepoint \<Rightarrow> lex_case" where
  "mozjs_kw_105 eof la = (None,
      if la = CH_k then ADVANCE 142 else END_STATE)"

definition mozjs_kw_106 :: "bool \<Rightarrow> codepoint \<Rightarrow> lex_case" where
  "mozjs_kw_106 eof la = (Some mozjs_anon_sym_case, END_STATE)"

definition mozjs_kw_107 :: "bool \<Rightarrow> codepoint \<Rightarrow> lex_case" where
  "mozjs_kw_107 eof la = (None,
      if la = CH_h then ADVANCE 143 else END_STATE)"

definition mozjs_kw_108 :: "bool \<Rightarrow> codepoint \<Rightarrow> lex_case" where
  "mozjs_kw_108 eof la = (None,
      if la = CH_s then ADVANCE 144 else END_STATE)"

definition mozjs_kw_109 :: "bool \<Rightarrow> codepoint \<Rightarrow> lex_case" where
  "mozjs_kw_109 eof la = (None,
      if la = CH_t then ADVANCE 145 else END_STATE)"

definition mozjs_kw_110 :: "bool \<Rightarrow> codepoint \<Rightarrow> lex_case" where
  "mozjs_kw_110 eof la = (None,
      if la = CH_i then ADVANCE 146 else END_STATE)"

definition mozjs_kw_111 :: "bool \<Rightarrow> codepoint \<Rightarrow> lex_case" where
  "mozjs_kw_111 eof la = (None,
      if la = CH_g then ADVANCE 147 else END_STATE)"

definition mozjs_kw_112 :: "bool \<Rightarrow> codepoint \<Rightarrow> lex_case" where
  "mozjs_kw_112 eof la = (None,
      if la = CH_u then ADVANCE 148 else END_STATE)"

definition mozjs_kw_113 :: "bool \<Rightarrow> codepoint \<Rightarrow> lex_case" where
  "mozjs_kw_113 eof la = (None,
      if la = CH_t then ADVANCE 149 else END_STATE)"

definition mozjs_kw_114 :: "bool \<Rightarrow> codepoint \<Rightarrow> lex_case" where
  "mozjs_kw_114 eof la = (Some mozjs_anon_sym_else, END_STATE)"

definition mozjs_kw_115 :: "bool \<Rightarrow> codepoint \<Rightarrow> lex_case" where
  "mozjs_kw_115 eof la = (None,
      if la = CH_r then ADVANCE 150 else END_STATE)"

definition mozjs_kw_116 :: "bool \<Rightarrow> codepoint \<Rightarrow> lex_case" where
  "mozjs_kw_116 eof la = (None,
      if la = CH_n then ADVANCE 151 else END_STATE)"

definition mozjs_kw_117 :: "bool \<Rightarrow> codepoint \<Rightarrow> lex_case" where
  "mozjs_kw_117 eof la = (None,
      if la = CH_e then ADVANCE 152 else END_STATE)"

definition mozjs_kw_118 :: "bool \<Rightarrow> codepoint \<Rightarrow> lex_case" where
  "mozjs_kw_118 eof la = (None,
      if la = CH_l then ADVANCE 153 else END_STATE)"

definition mozjs_kw_119 :: "bool \<Rightarrow> codepoint \<Rightarrow> lex_case" where
  "mozjs_kw_119 eof la = (Some mozjs_anon_sym_from, END_STATE)"

definition mozjs_kw_120 :: "bool \<Rightarrow> codepoint \<Rightarrow> lex_case" where
  "mozjs_kw_120 eof la = (None,
      if la = CH_t then ADVANCE 154 else END_STATE)"

definition mozjs_kw_121 :: "bool \<Rightarrow> codepoint \<Rightarrow> lex_case" where
  "mozjs_kw_121 eof la = (None,
      if la = CH_r then ADVANCE 155 else END_STATE)"

definition mozjs_kw_122 :: "bool \<Rightarrow> codepoint \<Rightarrow> lex_case" where
  "mozjs_kw_122 eof la = (None,
      if la = CH_a then ADVANCE 156 else END_STATE)"

definition mozjs_kw_123 :: "bool \<Rightarrow> codepoint \<Rightarrow> lex_case" where
  "mozjs_kw_123 eof la = (Some mozjs_anon_sym_meta, END_STATE)"

definition mozjs_kw_124 :: "bool \<Rightarrow> codepoint \<Rightarrow> lex_case" where
  "mozjs_kw_124 eof la = (Some mozjs_sym_null, END_STATE)"

definition mozjs_kw_125 :: "bool \<Rightarrow> codepoint \<Rightarrow> lex_case" where
  "mozjs_kw_125 eof la = (None,
      if la = CH_r then ADVANCE 157 else END_STATE)"

definition mozjs_kw_126 :: "bool \<Rightarrow> codepoint \<Rightarrow> lex_case" where
  "mozjs_kw_126 eof la = (None,
      if la = CH_i then ADVANCE 158 else END_STATE)"

definition mozjs_kw_127 :: "bool \<Rightarrow> codepoint \<Rightarrow> lex_case" where
  "mozjs_kw_127 eof la = (None,
      if la = CH_r then ADVANCE 159 else END_STATE)"

definition mozjs_kw_128 :: "bool \<Rightarrow> codepoint \<Rightarrow> lex_case" where
  "mozjs_kw_128 eof la = (None,
      if la = CH_c then ADVANCE 160 else END_STATE)"

definition mozjs_kw_129 :: "bool \<Rightarrow> codepoint \<Rightarrow> lex_case" where
  "mozjs_kw_129 eof la = (None,
      if la = CH_e then ADVANCE 161 else END_STATE)"

definition mozjs_kw_130 :: "bool \<Rightarrow> codepoint \<Rightarrow> lex_case" where
  "mozjs_kw_130 eof la = (Some mozjs_sym_this, END_STATE)"

definition mozjs_kw_131 :: "bool \<Rightarrow> codepoint \<Rightarrow> lex_case" where
  "mozjs_kw_131 eof la = (None,
      if la = CH_w then ADVANCE 162 else END_STATE)"

definition mozjs_kw_132 :: "bool \<Rightarrow> codepoint \<Rightarrow> lex_case" where
  "mozjs_kw_132 eof la = (Some mozjs_sym_true, END_STATE)"

definition mozjs_kw_133 :: "bool \<Rightarrow> codepoint \<Rightarrow> lex_case" where
  "mozjs_kw_133 eof la = (None,
      if la = CH_o then ADVANCE 163 else END_STATE)"

definition mozjs_kw_134 :: "bool \<Rightarrow> codepoint \<Rightarrow> lex_case" where
  "mozjs_kw_134 eof la = (None,
      if la = CH_f then ADVANCE 164 else END_STATE)"

definition mozjs_kw_135 :: "bool \<Rightarrow> codepoint \<Rightarrow> lex_case" where
  "mozjs_kw_135 eof la = (None,
      if la = CH_g then ADVANCE 165 else END_STATE)"

definition mozjs_kw_136 :: "bool \<Rightarrow> codepoint \<Rightarrow> lex_case" where
  "mozjs_kw_136 eof la = (Some mozjs_anon_sym_void, END_STATE)"

definition mozjs_kw_137 :: "bool \<Rightarrow> codepoint \<Rightarrow> lex_case" where
  "mozjs_kw_137 eof la = (None,
      if la = CH_e then ADVANCE 166 else END_STATE)"

definition mozjs_kw_138 :: "bool \<Rightarrow> codepoint \<Rightarrow> lex_case" where
  "mozjs_kw_138 eof la = (Some mozjs_anon_sym_with, END_STATE)"

definition mozjs_kw_139 :: "bool \<Rightarrow> codepoint \<Rightarrow> lex_case" where
  "mozjs_kw_139 eof la = (None,
      if la = CH_d then ADVANCE 167 else END_STATE)"

definition mozjs_kw_140 :: "bool \<Rightarrow> codepoint \<Rightarrow> lex_case" where
  "mozjs_kw_140 eof la = (Some mozjs_anon_sym_async, END_STATE)"

definition mozjs_kw_141 :: "bool \<Rightarrow> codepoint \<Rightarrow> lex_case" where
  "mozjs_kw_141 eof la = (Some mozjs_anon_sym_await, END_STATE)"

definition mozjs_kw_142 :: "bool \<Rightarrow> codepoint \<Rightarrow> lex_case" where
  "mozjs_kw_142 eof la = (Some mozjs_anon_sym_break, END_STATE)"

definition mozjs_kw_143 :: "bool \<Rightarrow> codepoint \<Rightarrow> lex_case" where
  "mozjs_kw_143 eof la = (Some mozjs_anon_sym_catch, END_STATE)"

definition mozjs_kw_144 :: "bool \<Rightarrow> codepoint \<Rightarrow> lex_case" where
  "mozjs_kw_144 eof la = (Some mozjs_anon_sym_class, END_STATE)"

definition mozjs_kw_145 :: "bool \<Rightarrow> codepoint \<Rightarrow> lex_case" where
  "mozjs_kw_145 eof la = (Some mozjs_anon_sym_const, END_STATE)"

definition mozjs_kw_146 :: "bool \<Rightarrow> codepoint \<Rightarrow> lex_case" where
  "mozjs_kw_146 eof la = (None,
      if la = CH_n then ADVANCE 168 else END_STATE)"

definition mozjs_kw_147 :: "bool \<Rightarrow> codepoint \<Rightarrow> lex_case" where
  "mozjs_kw_147 eof la = (None,
      if la = CH_g then ADVANCE 169 else END_STATE)"

definition mozjs_kw_148 :: "bool \<Rightarrow> codepoint \<Rightarrow> lex_case" where
  "mozjs_kw_148 eof la = (None,
      if la = CH_l then ADVANCE 170 else END_STATE)"

definition mozjs_kw_149 :: "bool \<Rightarrow> codepoint \<Rightarrow> lex_case" where
  "mozjs_kw_149 eof la = (None,
      if la = CH_e then ADVANCE 171 else END_STATE)"

definition mozjs_kw_150 :: "bool \<Rightarrow> codepoint \<Rightarrow> lex_case" where
  "mozjs_kw_150 eof la = (None,
      if la = CH_t then ADVANCE 172 else END_STATE)"

definition mozjs_kw_151 :: "bool \<Rightarrow> codepoint \<Rightarrow> lex_case" where
  "mozjs_kw_151 eof la = (None,
      if la = CH_d then ADVANCE 173 else END_STATE)"

definition mozjs_kw_152 :: "bool \<Rightarrow> codepoint \<Rightarrow> lex_case" where
  "mozjs_kw_152 eof la = (Some mozjs_sym_false, END_STATE)"

definition mozjs_kw_153 :: "bool \<Rightarrow> codepoint \<Rightarrow> lex_case" where
  "mozjs_kw_153 eof la = (None,
      if la = CH_l then ADVANCE 174 else END_STATE)"

definition mozjs_kw_154 :: "bool \<Rightarrow> codepoint \<Rightarrow> lex_case" where
  "mozjs_kw_154 eof la = (None,
      if la = CH_i then ADVANCE 175 else END_STATE)"

definition mozjs_kw_155 :: "bool \<Rightarrow> codepoint \<Rightarrow> lex_case" where
  "mozjs_kw_155 eof la = (None,
      if la = CH_t then ADVANCE 176 else END_STATE)"

definition mozjs_kw_156 :: "bool \<Rightarrow> codepoint \<Rightarrow> lex_case" where
  "mozjs_kw_156 eof la = (None,
      if la = CH_n then ADVANCE 177 else END_STATE)"

definition mozjs_kw_157 :: "bool \<Rightarrow> codepoint \<Rightarrow> lex_case" where
  "mozjs_kw_157 eof la = (None,
      if la = CH_n then ADVANCE 178 else END_STATE)"

definition mozjs_kw_158 :: "bool \<Rightarrow> codepoint \<Rightarrow> lex_case" where
  "mozjs_kw_158 eof la = (None,
      if la = CH_c then ADVANCE 179 else END_STATE)"

definition mozjs_kw_159 :: "bool \<Rightarrow> codepoint \<Rightarrow> lex_case" where
  "mozjs_kw_159 eof la = (Some mozjs_sym_super, END_STATE)"

definition mozjs_kw_160 :: "bool \<Rightarrow> codepoint \<Rightarrow> lex_case" where
  "mozjs_kw_160 eof la = (None,
      if la = CH_h then ADVANCE 180 else END_STATE)"

definition mozjs_kw_161 :: "bool \<Rightarrow> codepoint \<Rightarrow> lex_case" where
  "mozjs_kw_161 eof la = (None,
      if la = CH_t then ADVANCE 181 else END_STATE)"

definition mozjs_kw_162 :: "bool \<Rightarrow> codepoint \<Rightarrow> lex_case" where
  "mozjs_kw_162 eof la = (Some mozjs_anon_sym_throw, END_STATE)"

definition mozjs_kw_163 :: "bool \<Rightarrow> codepoint \<Rightarrow> lex_case" where
  "mozjs_kw_163 eof la = (None,
      if la = CH_f then ADVANCE 182 else END_STATE)"

definition mozjs_kw_164 :: "bool \<Rightarrow> codepoint \<Rightarrow> lex_case" where
  "mozjs_kw_164 eof la = (None,
      if la = CH_i then ADVANCE 183 else END_STATE)"

definition mozjs_kw_165 :: "bool \<Rightarrow> codepoint \<Rightarrow> lex_case" where
  "mozjs_kw_165 eof la = (Some mozjs_anon_sym_using, END_STATE)"

definition mozjs_kw_166 :: "bool \<Rightarrow> codepoint \<Rightarrow> lex_case" where
  "mozjs_kw_166 eof la = (Some mozjs_anon_sym_while, END_STATE)"

definition mozjs_kw_167 :: "bool \<Rightarrow> codepoint \<Rightarrow> lex_case" where
  "mozjs_kw_167 eof la = (Some mozjs_anon_sym_yield, END_STATE)"

definition mozjs_kw_168 :: "bool \<Rightarrow> codepoint \<Rightarrow> lex_case" where
  "mozjs_kw_168 eof la = (None,
      if la = CH_u then ADVANCE 184 else END_STATE)"

definition mozjs_kw_169 :: "bool \<Rightarrow> codepoint \<Rightarrow> lex_case" where
  "mozjs_kw_169 eof la = (None,
      if la = CH_e then ADVANCE 185 else END_STATE)"

definition mozjs_kw_170 :: "bool \<Rightarrow> codepoint \<Rightarrow> lex_case" where
  "mozjs_kw_170 eof la = (None,
      if la = CH_t then ADVANCE 186 else END_STATE)"

definition mozjs_kw_171 :: "bool \<Rightarrow> codepoint \<Rightarrow> lex_case" where
  "mozjs_kw_171 eof la = (Some mozjs_anon_sym_delete, END_STATE)"

definition mozjs_kw_172 :: "bool \<Rightarrow> codepoint \<Rightarrow> lex_case" where
  "mozjs_kw_172 eof la = (Some mozjs_anon_sym_export, END_STATE)"

definition mozjs_kw_173 :: "bool \<Rightarrow> codepoint \<Rightarrow> lex_case" where
  "mozjs_kw_173 eof la = (None,
      if la = CH_s then ADVANCE 187 else END_STATE)"

definition mozjs_kw_174 :: "bool \<Rightarrow> codepoint \<Rightarrow> lex_case" where
  "mozjs_kw_174 eof la = (None,
      if la = CH_y then ADVANCE 188 else END_STATE)"

definition mozjs_kw_175 :: "bool \<Rightarrow> codepoint \<Rightarrow> lex_case" where
  "mozjs_kw_175 eof la = (None,
      if la = CH_o then ADVANCE 189 else END_STATE)"

definition mozjs_kw_176 :: "bool \<Rightarrow> codepoint \<Rightarrow> lex_case" where
  "mozjs_kw_176 eof la = (Some mozjs_anon_sym_import, END_STATE)"

definition mozjs_kw_177 :: "bool \<Rightarrow> codepoint \<Rightarrow> lex_case" where
  "mozjs_kw_177 eof la = (None,
      if la = CH_c then ADVANCE 190 else END_STATE)"

definition mozjs_kw_178 :: "bool \<Rightarrow> codepoint \<Rightarrow> lex_case" where
  "mozjs_kw_178 eof la = (Some mozjs_anon_sym_return, END_STATE)"

definition mozjs_kw_179 :: "bool \<Rightarrow> codepoint \<Rightarrow> lex_case" where
  "mozjs_kw_179 eof la = (Some mozjs_anon_sym_static, END_STATE)"

definition mozjs_kw_180 :: "bool \<Rightarrow> codepoint \<Rightarrow> lex_case" where
  "mozjs_kw_180 eof la = (Some mozjs_anon_sym_switch, END_STATE)"

definition mozjs_kw_181 :: "bool \<Rightarrow> codepoint \<Rightarrow> lex_case" where
  "mozjs_kw_181 eof la = (Some mozjs_anon_sym_target, END_STATE)"

definition mozjs_kw_182 :: "bool \<Rightarrow> codepoint \<Rightarrow> lex_case" where
  "mozjs_kw_182 eof la = (Some mozjs_anon_sym_typeof, END_STATE)"

definition mozjs_kw_183 :: "bool \<Rightarrow> codepoint \<Rightarrow> lex_case" where
  "mozjs_kw_183 eof la = (None,
      if la = CH_n then ADVANCE 191 else END_STATE)"

definition mozjs_kw_184 :: "bool \<Rightarrow> codepoint \<Rightarrow> lex_case" where
  "mozjs_kw_184 eof la = (None,
      if la = CH_e then ADVANCE 192 else END_STATE)"

definition mozjs_kw_185 :: "bool \<Rightarrow> codepoint \<Rightarrow> lex_case" where
  "mozjs_kw_185 eof la = (None,
      if la = CH_r then ADVANCE 193 else END_STATE)"

definition mozjs_kw_186 :: "bool \<Rightarrow> codepoint \<Rightarrow> lex_case" where
  "mozjs_kw_186 eof la = (Some mozjs_anon_sym_default, END_STATE)"

definition mozjs_kw_187 :: "bool \<Rightarrow> codepoint \<Rightarrow> lex_case" where
  "mozjs_kw_187 eof la = (Some mozjs_anon_sym_extends, END_STATE)"

definition mozjs_kw_188 :: "bool \<Rightarrow> codepoint \<Rightarrow> lex_case" where
  "mozjs_kw_188 eof la = (Some mozjs_anon_sym_finally, END_STATE)"

definition mozjs_kw_189 :: "bool \<Rightarrow> codepoint \<Rightarrow> lex_case" where
  "mozjs_kw_189 eof la = (None,
      if la = CH_n then ADVANCE 194 else END_STATE)"

definition mozjs_kw_190 :: "bool \<Rightarrow> codepoint \<Rightarrow> lex_case" where
  "mozjs_kw_190 eof la = (None,
      if la = CH_e then ADVANCE 195 else END_STATE)"

definition mozjs_kw_191 :: "bool \<Rightarrow> codepoint \<Rightarrow> lex_case" where
  "mozjs_kw_191 eof la = (None,
      if la = CH_e then ADVANCE 196 else END_STATE)"

definition mozjs_kw_192 :: "bool \<Rightarrow> codepoint \<Rightarrow> lex_case" where
  "mozjs_kw_192 eof la = (Some mozjs_anon_sym_continue, END_STATE)"

definition mozjs_kw_193 :: "bool \<Rightarrow> codepoint \<Rightarrow> lex_case" where
  "mozjs_kw_193 eof la = (Some mozjs_anon_sym_debugger, END_STATE)"

definition mozjs_kw_194 :: "bool \<Rightarrow> codepoint \<Rightarrow> lex_case" where
  "mozjs_kw_194 eof la = (Some mozjs_anon_sym_function, END_STATE)"

definition mozjs_kw_195 :: "bool \<Rightarrow> codepoint \<Rightarrow> lex_case" where
  "mozjs_kw_195 eof la = (None,
      if la = CH_o then ADVANCE 197 else END_STATE)"

definition mozjs_kw_196 :: "bool \<Rightarrow> codepoint \<Rightarrow> lex_case" where
  "mozjs_kw_196 eof la = (None,
      if la = CH_d then ADVANCE 198 else END_STATE)"

definition mozjs_kw_197 :: "bool \<Rightarrow> codepoint \<Rightarrow> lex_case" where
  "mozjs_kw_197 eof la = (None,
      if la = CH_f then ADVANCE 199 else END_STATE)"

definition mozjs_kw_198 :: "bool \<Rightarrow> codepoint \<Rightarrow> lex_case" where
  "mozjs_kw_198 eof la = (Some mozjs_sym_undefined, END_STATE)"

definition mozjs_kw_199 :: "bool \<Rightarrow> codepoint \<Rightarrow> lex_case" where
  "mozjs_kw_199 eof la = (Some mozjs_anon_sym_instanceof, END_STATE)"

definition mozjs_kw_cases_0 :: "(bool \<Rightarrow> codepoint \<Rightarrow> lex_case) list" where
  "mozjs_kw_cases_0 = [mozjs_kw_0, mozjs_kw_1, mozjs_kw_2, mozjs_kw_3, mozjs_kw_4, mozjs_kw_5,
    mozjs_kw_6, mozjs_kw_7, mozjs_kw_8, mozjs_kw_9, mozjs_kw_10, mozjs_kw_11, mozjs_kw_12,
    mozjs_kw_13, mozjs_kw_14, mozjs_kw_15, mozjs_kw_16, mozjs_kw_17, mozjs_kw_18, mozjs_kw_19,
    mozjs_kw_20, mozjs_kw_21, mozjs_kw_22, mozjs_kw_23, mozjs_kw_24, mozjs_kw_25, mozjs_kw_26,
    mozjs_kw_27, mozjs_kw_28, mozjs_kw_29, mozjs_kw_30, mozjs_kw_31, mozjs_kw_32, mozjs_kw_33]"

definition mozjs_kw_cases_1 :: "(bool \<Rightarrow> codepoint \<Rightarrow> lex_case) list" where
  "mozjs_kw_cases_1 = [mozjs_kw_34, mozjs_kw_35, mozjs_kw_36, mozjs_kw_37, mozjs_kw_38,
    mozjs_kw_39, mozjs_kw_40, mozjs_kw_41, mozjs_kw_42, mozjs_kw_43, mozjs_kw_44, mozjs_kw_45,
    mozjs_kw_46, mozjs_kw_47, mozjs_kw_48, mozjs_kw_49, mozjs_kw_50, mozjs_kw_51, mozjs_kw_52,
    mozjs_kw_53, mozjs_kw_54, mozjs_kw_55, mozjs_kw_56, mozjs_kw_57, mozjs_kw_58, mozjs_kw_59,
    mozjs_kw_60, mozjs_kw_61, mozjs_kw_62, mozjs_kw_63, mozjs_kw_64, mozjs_kw_65, mozjs_kw_66,
    mozjs_kw_67, mozjs_kw_68, mozjs_kw_69, mozjs_kw_70, mozjs_kw_71, mozjs_kw_72, mozjs_kw_73,
    mozjs_kw_74, mozjs_kw_75, mozjs_kw_76, mozjs_kw_77, mozjs_kw_78, mozjs_kw_79, mozjs_kw_80,
    mozjs_kw_81]"

definition mozjs_kw_cases_2 :: "(bool \<Rightarrow> codepoint \<Rightarrow> lex_case) list" where
  "mozjs_kw_cases_2 = [mozjs_kw_82, mozjs_kw_83, mozjs_kw_84, mozjs_kw_85, mozjs_kw_86,
    mozjs_kw_87, mozjs_kw_88, mozjs_kw_89, mozjs_kw_90, mozjs_kw_91, mozjs_kw_92, mozjs_kw_93,
    mozjs_kw_94, mozjs_kw_95, mozjs_kw_96, mozjs_kw_97, mozjs_kw_98, mozjs_kw_99, mozjs_kw_100,
    mozjs_kw_101, mozjs_kw_102, mozjs_kw_103, mozjs_kw_104, mozjs_kw_105, mozjs_kw_106,
    mozjs_kw_107, mozjs_kw_108, mozjs_kw_109, mozjs_kw_110, mozjs_kw_111, mozjs_kw_112,
    mozjs_kw_113, mozjs_kw_114, mozjs_kw_115, mozjs_kw_116, mozjs_kw_117, mozjs_kw_118,
    mozjs_kw_119, mozjs_kw_120, mozjs_kw_121, mozjs_kw_122, mozjs_kw_123, mozjs_kw_124,
    mozjs_kw_125, mozjs_kw_126, mozjs_kw_127, mozjs_kw_128, mozjs_kw_129, mozjs_kw_130,
    mozjs_kw_131]"

definition mozjs_kw_cases_3 :: "(bool \<Rightarrow> codepoint \<Rightarrow> lex_case) list" where
  "mozjs_kw_cases_3 = [mozjs_kw_132, mozjs_kw_133, mozjs_kw_134, mozjs_kw_135, mozjs_kw_136,
    mozjs_kw_137, mozjs_kw_138, mozjs_kw_139, mozjs_kw_140, mozjs_kw_141, mozjs_kw_142,
    mozjs_kw_143, mozjs_kw_144, mozjs_kw_145, mozjs_kw_146, mozjs_kw_147, mozjs_kw_148,
    mozjs_kw_149, mozjs_kw_150, mozjs_kw_151, mozjs_kw_152, mozjs_kw_153, mozjs_kw_154,
    mozjs_kw_155, mozjs_kw_156, mozjs_kw_157, mozjs_kw_158, mozjs_kw_159, mozjs_kw_160,
    mozjs_kw_161, mozjs_kw_162, mozjs_kw_163, mozjs_kw_164, mozjs_kw_165, mozjs_kw_166,
    mozjs_kw_167, mozjs_kw_168, mozjs_kw_169, mozjs_kw_170, mozjs_kw_171, mozjs_kw_172,
    mozjs_kw_173, mozjs_kw_174, mozjs_kw_175, mozjs_kw_176, mozjs_kw_177, mozjs_kw_178,
    mozjs_kw_179, mozjs_kw_180, mozjs_kw_181]"

definition mozjs_kw_cases_4 :: "(bool \<Rightarrow> codepoint \<Rightarrow> lex_case) list" where
  "mozjs_kw_cases_4 = [mozjs_kw_182, mozjs_kw_183, mozjs_kw_184, mozjs_kw_185, mozjs_kw_186,
    mozjs_kw_187, mozjs_kw_188, mozjs_kw_189, mozjs_kw_190, mozjs_kw_191, mozjs_kw_192,
    mozjs_kw_193, mozjs_kw_194, mozjs_kw_195, mozjs_kw_196, mozjs_kw_197, mozjs_kw_198,
    mozjs_kw_199]"

definition mozjs_kw_cases :: "(bool \<Rightarrow> codepoint \<Rightarrow> lex_case) list" where
  "mozjs_kw_cases = mozjs_kw_cases_0 @ mozjs_kw_cases_1 @ mozjs_kw_cases_2 @ mozjs_kw_cases_3 @
    mozjs_kw_cases_4"

lemma mozjs_kw_list:
  "mozjs_kw_cases = [mozjs_kw_0, mozjs_kw_1, mozjs_kw_2, mozjs_kw_3, mozjs_kw_4, mozjs_kw_5,
    mozjs_kw_6, mozjs_kw_7, mozjs_kw_8, mozjs_kw_9, mozjs_kw_10, mozjs_kw_11, mozjs_kw_12,
    mozjs_kw_13, mozjs_kw_14, mozjs_kw_15, mozjs_kw_16, mozjs_kw_17, mozjs_kw_18, mozjs_kw_19,
    mozjs_kw_20, mozjs_kw_21, mozjs_kw_22, mozjs_kw_23, mozjs_kw_24, mozjs_kw_25, mozjs_kw_26,
    mozjs_kw_27, mozjs_kw_28, mozjs_kw_29, mozjs_kw_30, mozjs_kw_31, mozjs_kw_32, mozjs_kw_33,
    mozjs_kw_34, mozjs_kw_35, mozjs_kw_36, mozjs_kw_37, mozjs_kw_38, mozjs_kw_39, mozjs_kw_40,
    mozjs_kw_41, mozjs_kw_42, mozjs_kw_43, mozjs_kw_44, mozjs_kw_45, mozjs_kw_46, mozjs_kw_47,
    mozjs_kw_48, mozjs_kw_49, mozjs_kw_50, mozjs_kw_51, mozjs_kw_52, mozjs_kw_53, mozjs_kw_54,
    mozjs_kw_55, mozjs_kw_56, mozjs_kw_57, mozjs_kw_58, mozjs_kw_59, mozjs_kw_60, mozjs_kw_61,
    mozjs_kw_62, mozjs_kw_63, mozjs_kw_64, mozjs_kw_65, mozjs_kw_66, mozjs_kw_67, mozjs_kw_68,
    mozjs_kw_69, mozjs_kw_70, mozjs_kw_71, mozjs_kw_72, mozjs_kw_73, mozjs_kw_74, mozjs_kw_75,
    mozjs_kw_76, mozjs_kw_77, mozjs_kw_78, mozjs_kw_79, mozjs_kw_80, mozjs_kw_81, mozjs_kw_82,
    mozjs_kw_83, mozjs_kw_84, mozjs_kw_85, mozjs_kw_86, mozjs_kw_87, mozjs_kw_88, mozjs_kw_89,
    mozjs_kw_90, mozjs_kw_91, mozjs_kw_92, mozjs_kw_93, mozjs_kw_94, mozjs_kw_95, mozjs_kw_96,
    mozjs_kw_97, mozjs_kw_98, mozjs_kw_99, mozjs_kw_100, mozjs_kw_101, mozjs_kw_102,
    mozjs_kw_103, mozjs_kw_104, mozjs_kw_105, mozjs_kw_106, mozjs_kw_107, mozjs_kw_108,
    mozjs_kw_109, mozjs_kw_110, mozjs_kw_111, mozjs_kw_112, mozjs_kw_113, mozjs_kw_114,
    mozjs_kw_115, mozjs_kw_116, mozjs_kw_117, mozjs_kw_118, mozjs_kw_119, mozjs_kw_120,
    mozjs_kw_121, mozjs_kw_122, mozjs_kw_123, mozjs_kw_124, mozjs_kw_125, mozjs_kw_126,
    mozjs_kw_127, mozjs_kw_128, mozjs_kw_129, mozjs_kw_130, mozjs_kw_131, mozjs_kw_132,
    mozjs_kw_133, mozjs_kw_134, mozjs_kw_135, mozjs_kw_136, mozjs_kw_137, mozjs_kw_138,
    mozjs_kw_139, mozjs_kw_140, mozjs_kw_141, mozjs_kw_142, mozjs_kw_143, mozjs_kw_144,
    mozjs_kw_145, mozjs_kw_146, mozjs_kw_147, mozjs_kw_148, mozjs_kw_149, mozjs_kw_150,
    mozjs_kw_151, mozjs_kw_152, mozjs_kw_153, mozjs_kw_154, mozjs_kw_155, mozjs_kw_156,
    mozjs_kw_157, mozjs_kw_158, mozjs_kw_159, mozjs_kw_160, mozjs_kw_161, mozjs_kw_162,
    mozjs_kw_163, mozjs_kw_164, mozjs_kw_165, mozjs_kw_166, mozjs_kw_167, mozjs_kw_168,
    mozjs_kw_169, mozjs_kw_170, mozjs_kw_171, mozjs_kw_172, mozjs_kw_173, mozjs_kw_174,
    mozjs_kw_175, mozjs_kw_176, mozjs_kw_177, mozjs_kw_178, mozjs_kw_179, mozjs_kw_180,
    mozjs_kw_181, mozjs_kw_182, mozjs_kw_183, mozjs_kw_184, mozjs_kw_185, mozjs_kw_186,
    mozjs_kw_187, mozjs_kw_188, mozjs_kw_189, mozjs_kw_190, mozjs_kw_191, mozjs_kw_192,
    mozjs_kw_193, mozjs_kw_194, mozjs_kw_195, mozjs_kw_196, mozjs_kw_197, mozjs_kw_198,
    mozjs_kw_199]"
  by (simp add: mozjs_kw_cases_def mozjs_kw_cases_0_def mozjs_kw_cases_1_def mozjs_kw_cases_2_def
    mozjs_kw_cases_3_def mozjs_kw_cases_4_def)

definition mozjs_ts_lex_keywords :: lex_switch where
  "mozjs_ts_lex_keywords state eof la =
     (if state < 200 then Some ((mozjs_kw_cases ! state) eof la) else None)"

lemmas mozjs_kw_defs =
  mozjs_kw_0_def mozjs_kw_1_def mozjs_kw_2_def mozjs_kw_3_def mozjs_kw_4_def mozjs_kw_5_def
    mozjs_kw_6_def mozjs_kw_7_def mozjs_kw_8_def mozjs_kw_9_def mozjs_kw_10_def mozjs_kw_11_def
    mozjs_kw_12_def mozjs_kw_13_def mozjs_kw_14_def mozjs_kw_15_def mozjs_kw_16_def
    mozjs_kw_17_def mozjs_kw_18_def mozjs_kw_19_def mozjs_kw_20_def mozjs_kw_21_def
    mozjs_kw_22_def mozjs_kw_23_def mozjs_kw_24_def mozjs_kw_25_def mozjs_kw_26_def
    mozjs_kw_27_def mozjs_kw_28_def mozjs_kw_29_def mozjs_kw_30_def mozjs_kw_31_def
    mozjs_kw_32_def mozjs_kw_33_def mozjs_kw_34_def mozjs_kw_35_def mozjs_kw_36_def
    mozjs_kw_37_def mozjs_kw_38_def mozjs_kw_39_def mozjs_kw_40_def mozjs_kw_41_def
    mozjs_kw_42_def mozjs_kw_43_def mozjs_kw_44_def mozjs_kw_45_def mozjs_kw_46_def
    mozjs_kw_47_def mozjs_kw_48_def mozjs_kw_49_def mozjs_kw_50_def mozjs_kw_51_def
    mozjs_kw_52_def mozjs_kw_53_def mozjs_kw_54_def mozjs_kw_55_def mozjs_kw_56_def
    mozjs_kw_57_def mozjs_kw_58_def mozjs_kw_59_def mozjs_kw_60_def mozjs_kw_61_def
    mozjs_kw_62_def mozjs_kw_63_def mozjs_kw_64_def mozjs_kw_65_def mozjs_kw_66_def
    mozjs_kw_67_def mozjs_kw_68_def mozjs_kw_69_def mozjs_kw_70_def mozjs_kw_71_def
    mozjs_kw_72_def mozjs_kw_73_def mozjs_kw_74_def mozjs_kw_75_def mozjs_kw_76_def
    mozjs_kw_77_def mozjs_kw_78_def mozjs_kw_79_def mozjs_kw_80_def mozjs_kw_81_def
    mozjs_kw_82_def mozjs_kw_83_def mozjs_kw_84_def mozjs_kw_85_def mozjs_kw_86_def
    mozjs_kw_87_def mozjs_kw_88_def mozjs_kw_89_def mozjs_kw_90_def mozjs_kw_91_def
    mozjs_kw_92_def mozjs_kw_93_def mozjs_kw_94_def mozjs_kw_95_def mozjs_kw_96_def
    mozjs_kw_97_def mozjs_kw_98_def mozjs_kw_99_def mozjs_kw_100_def mozjs_kw_101_def
    mozjs_kw_102_def mozjs_kw_103_def mozjs_kw_104_def mozjs_kw_105_def mozjs_kw_106_def
    mozjs_kw_107_def mozjs_kw_108_def mozjs_kw_109_def mozjs_kw_110_def mozjs_kw_111_def
    mozjs_kw_112_def mozjs_kw_113_def mozjs_kw_114_def mozjs_kw_115_def mozjs_kw_116_def
    mozjs_kw_117_def mozjs_kw_118_def mozjs_kw_119_def mozjs_kw_120_def mozjs_kw_121_def
    mozjs_kw_122_def mozjs_kw_123_def mozjs_kw_124_def mozjs_kw_125_def mozjs_kw_126_def
    mozjs_kw_127_def mozjs_kw_128_def mozjs_kw_129_def mozjs_kw_130_def mozjs_kw_131_def
    mozjs_kw_132_def mozjs_kw_133_def mozjs_kw_134_def mozjs_kw_135_def mozjs_kw_136_def
    mozjs_kw_137_def mozjs_kw_138_def mozjs_kw_139_def mozjs_kw_140_def mozjs_kw_141_def
    mozjs_kw_142_def mozjs_kw_143_def mozjs_kw_144_def mozjs_kw_145_def mozjs_kw_146_def
    mozjs_kw_147_def mozjs_kw_148_def mozjs_kw_149_def mozjs_kw_150_def mozjs_kw_151_def
    mozjs_kw_152_def mozjs_kw_153_def mozjs_kw_154_def mozjs_kw_155_def mozjs_kw_156_def
    mozjs_kw_157_def mozjs_kw_158_def mozjs_kw_159_def mozjs_kw_160_def mozjs_kw_161_def
    mozjs_kw_162_def mozjs_kw_163_def mozjs_kw_164_def mozjs_kw_165_def mozjs_kw_166_def
    mozjs_kw_167_def mozjs_kw_168_def mozjs_kw_169_def mozjs_kw_170_def mozjs_kw_171_def
    mozjs_kw_172_def mozjs_kw_173_def mozjs_kw_174_def mozjs_kw_175_def mozjs_kw_176_def
    mozjs_kw_177_def mozjs_kw_178_def mozjs_kw_179_def mozjs_kw_180_def mozjs_kw_181_def
    mozjs_kw_182_def mozjs_kw_183_def mozjs_kw_184_def mozjs_kw_185_def mozjs_kw_186_def
    mozjs_kw_187_def mozjs_kw_188_def mozjs_kw_189_def mozjs_kw_190_def mozjs_kw_191_def
    mozjs_kw_192_def mozjs_kw_193_def mozjs_kw_194_def mozjs_kw_195_def mozjs_kw_196_def
    mozjs_kw_197_def mozjs_kw_198_def mozjs_kw_199_def

section \<open>The switches are closed\<close>

interpretation mozjs_switch: case_switch mozjs_ts_lex 294 mozjs_lex_cases
proof
  show "mozjs_ts_lex s e c = (if s < 294 then Some ((mozjs_lex_cases ! s) e c) else None)" for s e c
    by (rule mozjs_ts_lex_def)
  show "length mozjs_lex_cases = 294"
    by (simp add: mozjs_lex_list)
  show "list_all (\<lambda>f. \<forall>e c. goto_bounded 294 (snd (f e c))) mozjs_lex_cases"
    unfolding mozjs_lex_list list.pred_inject mozjs_lex_defs snd_conv
    by (intro conjI allI TrueI goto_bounded_intros; simp)
  show "list_all (eof_stop mozjs_lex_cases) mozjs_lex_cases"
    by (simp add: mozjs_lex_list mozjs_lex_defs eof_stop_def)
qed

interpretation mozjs_keyword: case_switch mozjs_ts_lex_keywords 200 mozjs_kw_cases
proof
  show "mozjs_ts_lex_keywords s e c = (if s < 200 then Some ((mozjs_kw_cases ! s) e c) else None)" for s e c
    by (rule mozjs_ts_lex_keywords_def)
  show "length mozjs_kw_cases = 200"
    by (simp add: mozjs_kw_list)
  show "list_all (\<lambda>f. \<forall>e c. goto_bounded 200 (snd (f e c))) mozjs_kw_cases"
    unfolding mozjs_kw_list list.pred_inject mozjs_kw_defs snd_conv
    by (intro conjI allI TrueI goto_bounded_intros; simp)
  show "list_all (eof_stop mozjs_kw_cases) mozjs_kw_cases"
    by (simp add: mozjs_kw_list mozjs_kw_defs eof_stop_def)
qed

lemmas mozjs_auto = mozjs_switch.next_eq mozjs_switch.state_accepts_eq mozjs_lex_list

lemmas mozjs_kw_auto = mozjs_keyword.next_eq mozjs_keyword.state_accepts_eq mozjs_kw_list

end
