(* ===== verification/Mozjs_Text.thy ===== *)
theory Mozjs_Text
  imports Mozjs_Lex C_Tokens
begin

text \<open>
  The tokens of the JavaScript lexer where code stands: identifiers, numbers and comments, compared with
  their expressions in \<^verbatim>\<open>grammar.json\<close>. All the lex states of such places treat a first
  character alike, which is checked character by character; the states behind it are shared.
\<close>

section \<open>Texts\<close>

text \<open>Characters of a text without NUL; a code point has at most 21 bits.\<close>

definition js_char :: "codepoint \<Rightarrow> bool" where
  "js_char c \<longleftrightarrow> 0 < c \<and> c \<le> 0x10FFFF"

definition js_text :: "codepoint list \<Rightarrow> bool" where
  "js_text w \<longleftrightarrow> (\<forall>c\<in>set w. js_char c)"

lemma js_text_simps [simp]: "js_text []" "js_text (c # w) \<longleftrightarrow> js_char c \<and> js_text w"
  by (auto simp: js_text_def)

section \<open>The first character\<close>

definition mozjs_code_states :: "TSStateId list" where
  "mozjs_code_states = [13, 14, 15, 16, 17, 20, 21, 137, 138]"

text \<open>The states behind a first character that starts neither a number, a comment nor an identifier.\<close>

definition mozjs_other_states :: "TSStateId list" where
  "mozjs_other_states = [
    1, 2, 3, 4, 5, 6, 7, 8, 9, 10, 25, 40, 41, 42, 47, 48, 49, 50, 51, 52, 53, 54, 55, 56, 57,
    58, 59, 60, 61, 62, 63, 64, 65, 66, 67, 68, 69, 70, 71, 72, 73, 74, 75, 76, 77, 78, 79, 80,
    81, 82, 83, 84, 85, 89, 95, 100, 105, 107, 119, 120, 123, 128, 131, 140, 141, 142, 143, 144,
    145, 146, 147, 148, 149, 150, 151, 152, 153, 154, 155, 156, 157, 158, 159, 161, 162, 163,
    164, 165, 170, 172, 173, 186, 187, 188, 189, 190, 192, 193, 194, 195, 196, 197, 198, 199,
    200, 201, 202, 204, 205, 206, 207, 208, 209, 210, 211, 212, 213, 214, 215, 216, 217, 218,
    219, 220, 221, 222, 223, 226, 227, 228, 229, 230, 231, 232, 233, 234, 235, 236, 237, 238,
    239, 240, 241, 242, 264, 289, 290, 291, 293]"

definition js_identifier_start :: "codepoint \<Rightarrow> bool" where
  "js_identifier_start c \<longleftrightarrow> mozjs_starts_identifier c \<and> c \<noteq> CH_BACKSLASH"

definition js_digit :: "codepoint \<Rightarrow> bool" where
  "js_digit c \<longleftrightarrow> CH_0 \<le> c \<and> c \<le> CH_9"

definition first_char_ok :: "TSStateId \<Rightarrow> (bool \<Rightarrow> codepoint \<Rightarrow> lex_case) \<Rightarrow> codepoint \<Rightarrow> bool" where
  "first_char_ok s f c = (let t = goto_target (snd (f False c)) in
     if mozjs_in_extras c then t = Some s
     else if c = CH_0 then t = Some 271
     else if js_digit c then t = Some 272
     else if c = CH_DOT then t = Some 39 \<or> t = Some 169
     else if c = CH_SLASH then t = Some 33 \<or> t = Some 224 \<or> t = Some 225
     else if c = CH_BACKSLASH then t = Some 94
     else if js_identifier_start c then t = Some 284 \<or> t = Some 288
     else case t of None \<Rightarrow> True | Some t \<Rightarrow> t \<in> set mozjs_other_states)"

text \<open>Ranges that lie end to end from \<open>a\<close> to \<open>b\<close>.\<close>

fun covers_range :: "(codepoint \<times> codepoint) list \<Rightarrow> codepoint \<Rightarrow> codepoint \<Rightarrow> bool" where
  "covers_range [] a b \<longleftrightarrow> b < a"
| "covers_range ((x, y) # rs) a b \<longleftrightarrow> x \<le> a \<and> covers_range rs (y + 1) b"

lemma covers_range_in: "covers_range rs a b \<Longrightarrow> a \<le> c \<Longrightarrow> c \<le> b \<Longrightarrow> \<exists>(x, y)\<in>set rs. x \<le> c \<and> c \<le> y"
  by (induction rs a b rule: covers_range.induct) force+

text \<open>The characters one by one where the states differ, and the ranges between them.\<close>

definition ascii_parts :: "(codepoint \<times> codepoint) list" where
  "ascii_parts = [(1, 8), (9, 13), (14, 31), (32, 32), (33, 33), (34, 34), (35, 35), (36, 36), (37,
     37), (38, 38), (39, 39), (40, 40), (41, 41), (42, 42), (43, 43), (44, 44), (45, 45),
     (46, 46), (47, 47), (48, 48), (49, 57), (58, 58), (59, 59), (60, 60), (61, 61), (62,
     62), (63, 63), (64, 64), (65, 90), (91, 91), (92, 92), (93, 93), (94, 94), (95, 95),
     (96, 96), (97, 114), (115, 115), (116, 122), (123, 123), (124, 124), (125, 125),
     (126, 126)]"

definition wide_parts :: "(codepoint \<times> codepoint) list" where
  "wide_parts = [(127, 159), (160, 160), (161, 5759), (5760, 5760), (5761, 8191), (8192, 8203), (8204, 8231),
     (8232, 8233), (8234, 8238), (8239, 8239), (8240, 8286), (8287, 8288), (8289, 12287), (12288, 12288),
     (12289, 65278), (65279, 65279), (65280, 0x10FFFF)]"

lemma parts_cover: "covers_range ascii_parts 1 126" "covers_range wide_parts 127 0x10FFFF"
  by (simp_all add: ascii_parts_def wide_parts_def)

lemma ADVANCE_MAP_outside:
  "a \<le> c \<Longrightarrow> c \<le> b \<Longrightarrow> list_all (\<lambda>p. fst p < a \<or> b < fst p) m \<Longrightarrow> ADVANCE_MAP m c = None"
  by (induction m c rule: ADVANCE_MAP.induct) auto

lemmas first_char_simps = first_char_ok_def mozjs_in_extras_iff mozjs_starts_identifier_iff
  js_identifier_start_def js_digit_def goto_target_def

definition code_cases :: "(TSStateId \<times> (bool \<Rightarrow> codepoint \<Rightarrow> lex_case)) list" where
  "code_cases = [(13, mozjs_lex_13), (14, mozjs_lex_14), (15, mozjs_lex_15), (16, mozjs_lex_16), (17, mozjs_lex_17), (20, mozjs_lex_20), (21, mozjs_lex_21), (137, mozjs_lex_137), (138, mozjs_lex_138)]"

lemmas code_cases_defs = mozjs_lex_13_def mozjs_lex_14_def mozjs_lex_15_def mozjs_lex_16_def mozjs_lex_17_def mozjs_lex_20_def mozjs_lex_21_def mozjs_lex_137_def mozjs_lex_138_def

lemma first_ascii:
  "list_all (\<lambda>(s, f). list_all (\<lambda>(a, b). \<forall>c. a \<le> c \<longrightarrow> c \<le> b \<longrightarrow> first_char_ok s f c) ascii_parts) code_cases"
  unfolding ascii_parts_def code_cases_def list.pred_inject prod.case
  by (simp add: first_char_simps code_cases_defs ADVANCE_MAP_outside mozjs_other_states_def)

text \<open>Above ASCII the states only tell blanks from other characters, which all start identifiers.\<close>

lemma first_wide:
  "list_all (\<lambda>(s, f). \<forall>c. 126 < c \<longrightarrow>
     goto_target (snd (f False c)) = (if mozjs_in_extras c then Some s else Some 288)) code_cases"
proof -
  have "126 < c \<Longrightarrow> list_all (\<lambda>p. fst p \<le> 126) m \<Longrightarrow> ADVANCE_MAP m c = None" for m c
    by (induction m c rule: ADVANCE_MAP.induct) auto
  then show ?thesis unfolding code_cases_def list.pred_inject prod.case
    by (simp add: code_cases_defs goto_target_def del: ADVANCE_MAP.simps)
qed

lemma wide_classes: "list_all (\<lambda>(a, b). \<forall>c. a \<le> c \<longrightarrow> c \<le> b \<longrightarrow>
    js_identifier_start c = (\<not> mozjs_in_extras c)) wide_parts"
  unfolding wide_parts_def list.pred_inject prod.case
  by (simp add: mozjs_in_extras_iff mozjs_starts_identifier_iff js_identifier_start_def)

lemma code_cases_nth: "list_all (\<lambda>(s, f). mozjs_lex_cases ! s = f) code_cases"
  unfolding code_cases_def list.pred_inject prod.case by (simp add: mozjs_lex_list)

lemma code_states: "mozjs_code_states = map fst code_cases"
  by (simp add: mozjs_code_states_def code_cases_def)

lemma code_case: "s \<in> set mozjs_code_states \<Longrightarrow> (s, mozjs_lex_cases ! s) \<in> set code_cases"
  using code_cases_nth by (fastforce simp: code_states list_all_iff)

lemma first_char:
  assumes "s \<in> set mozjs_code_states" "js_char c"
  shows "first_char_ok s (mozjs_lex_cases ! s) c"
proof (cases "c \<le> 126")
  case True
  then obtain a b where "(a, b) \<in> set ascii_parts" "a \<le> c" "c \<le> b"
    using covers_range_in [OF parts_cover(1), of c] assms(2) by (auto simp: js_char_def)
  then show ?thesis using code_case [OF assms(1)] first_ascii by (fastforce simp: list_all_iff)
next
  case False
  then obtain a b where "(a, b) \<in> set wide_parts" "a \<le> c" "c \<le> b"
    using covers_range_in [OF parts_cover(2), of c] assms(2) by (auto simp: js_char_def)
  then have "js_identifier_start c = (\<not> mozjs_in_extras c)" using wide_classes by (fastforce simp: list_all_iff)
  moreover have "goto_target (snd ((mozjs_lex_cases ! s) False c)) =
      (if mozjs_in_extras c then Some s else Some 288)"
    using first_wide code_case [OF assms(1)] False by (auto simp: list_all_iff)
  ultimately show ?thesis using False by (simp add: first_char_ok_def js_digit_def)
qed

section \<open>Comments\<close>

interpretation js_block: block_comment_states mozjs_ts_lex mozjs_sym_comment 36 35 260
  by unfold_locales (simp_all add: mozjs_auto mozjs_lex_defs)

definition js_line_break :: "codepoint \<Rightarrow> bool" where
  "js_line_break c \<longleftrightarrow> c = CH_LF \<or> c = CH_CR \<or> c = 0x2028 \<or> c = 0x2029"

definition js_line_comment_body :: regex where
  "js_line_comment_body = Star (Class (\<lambda>c. \<not> js_line_break c))"

definition js_comment_regex :: regex where
  "js_comment_regex = Alt (Seq (Word [CH_SLASH, CH_SLASH]) js_line_comment_body) block_comment_regex"

lemma js_text_no_nul: "js_text w \<Longrightarrow> 0 \<notin> set w"
  by (auto simp: js_text_def js_char_def)

lemma js_line_comment_language:
  "js_text w \<Longrightarrow> token_word mozjs_ts_lex 263 mozjs_sym_comment w \<longleftrightarrow> matches js_line_comment_body w"
proof (induction w)
  case (Cons c w)
  then show ?case
    by (auto simp: regex_step mozjs_auto mozjs_lex_defs js_line_comment_body_def js_line_break_def js_char_def)
qed (simp add: regex_step mozjs_auto mozjs_lex_defs js_line_comment_body_def)

definition js_slash_states :: "TSStateId list" where
  "js_slash_states = [33, 224, 225]"

lemma js_slash_next:
  "list_all (\<lambda>s. \<forall>c. c \<noteq> CH_EQUALS \<longrightarrow> lex_next mozjs_ts_lex s c =
     (if c = CH_STAR then Some 36 else if c = CH_SLASH then Some 263 else None)) js_slash_states"
  unfolding js_slash_states_def list.pred_inject by (simp add: mozjs_auto mozjs_lex_defs)

section \<open>Identifiers\<close>

definition js_hex :: "codepoint \<Rightarrow> bool" where
  "js_hex c \<longleftrightarrow> js_digit c \<or> CH_A \<le> c \<and> c \<le> CH_F \<or> CH_a \<le> c \<and> c \<le> CH_f"

definition js_unicode_escape :: regex where
  "js_unicode_escape = Alt
     (Seq (Word [CH_BACKSLASH, CH_u]) (Seq (Class js_hex) (Seq (Class js_hex) (Seq (Class js_hex) (Class js_hex)))))
     (Seq (Word [CH_BACKSLASH, CH_u, CH_LBRACE]) (Seq (Plus (Class js_hex)) (Char CH_RBRACE)))"

text \<open>
  The classes of the pattern: all but control characters, white space and ASCII punctuation, and at the start
  no digits either.
\<close>

definition js_white_space :: "codepoint \<Rightarrow> bool" where
  "js_white_space c \<longleftrightarrow> CH_TAB \<le> c \<and> c \<le> CH_CR \<or> c = CH_SPACE \<or> c = 0xA0 \<or> c = 0x1680 \<or>
     0x2000 \<le> c \<and> c \<le> 0x200A \<or> c = 0x202F \<or> c = 0x205F \<or> c = 0x3000"

definition js_punctuation :: "codepoint list" where
  "js_punctuation = [CH_COLON, CH_SEMICOLON, CH_BACKTICK, CH_DQUOTE, CH_QUOTE, CH_AT, CH_HASH, CH_DOT, CH_COMMA, CH_BAR,
     CH_CARET, CH_AMP, CH_LT, CH_EQUALS, CH_GT, CH_PLUS, CH_MINUS, CH_STAR, CH_SLASH, CH_BACKSLASH, CH_PERCENT,
     CH_QMARK, CH_BANG, CH_TILDE, CH_LPAREN, CH_RPAREN, CH_LBRACKET, CH_RBRACKET, CH_LBRACE, CH_RBRACE,
     0xFEFF, 0x2060, 0x200B, 0x2028, 0x2029]"

definition js_identifier_char :: "codepoint \<Rightarrow> bool" where
  "js_identifier_char c \<longleftrightarrow> 0x1F < c \<and> \<not> js_white_space c \<and> c \<notin> set js_punctuation"

definition js_identifier_regex :: regex where
  "js_identifier_regex = Seq (Alt (Class (\<lambda>c. js_identifier_char c \<and> \<not> js_digit c)) js_unicode_escape)
     (Star (Alt (Class js_identifier_char) js_unicode_escape))"

lemma identifier_parts:
  "list_all (\<lambda>(a, b). \<forall>c. a \<le> c \<longrightarrow> c \<le> b \<longrightarrow>
     js_identifier_char c = (mozjs_in_identifier c \<and> c \<noteq> CH_BACKSLASH)) (ascii_parts @ wide_parts)"
  unfolding ascii_parts_def wide_parts_def append.simps list.pred_inject prod.case
    js_identifier_char_def js_white_space_def js_punctuation_def mozjs_in_identifier_iff
  by (auto; arith)

lemma in_parts:
  assumes "list_all (\<lambda>(a, b). \<forall>c. a \<le> c \<longrightarrow> c \<le> b \<longrightarrow> P c) (ascii_parts @ wide_parts)" "js_char c"
  shows "P c"
proof -
  have "\<exists>(a, b)\<in>set (ascii_parts @ wide_parts). a \<le> c \<and> c \<le> b"
    using covers_range_in [OF parts_cover(1), of c] covers_range_in [OF parts_cover(2), of c] assms(2)
    by (cases "c \<le> 126") (auto simp: js_char_def)
  then show ?thesis using assms(1) by (fastforce simp: list_all_iff)
qed

lemma js_identifier_char_iff:
  "js_char c \<Longrightarrow> js_identifier_char c \<longleftrightarrow> mozjs_in_identifier c \<and> c \<noteq> CH_BACKSLASH"
  by (rule in_parts [OF identifier_parts])

lemma mozjs_in_identifier_char:
  "js_char c \<Longrightarrow> mozjs_in_identifier c \<longleftrightarrow> js_identifier_char c \<or> c = CH_BACKSLASH"
proof -
  have "mozjs_in_identifier CH_BACKSLASH" by (simp add: mozjs_in_identifier_iff)
  then show "js_char c \<Longrightarrow> ?thesis" using js_identifier_char_iff [of c] by blast
qed

text \<open>Behind \<^verbatim>\<open>static\<close> and a blank there is no identifier.\<close>

lemma js_static_get_states:
  "s \<in> set [11, 90, 91, 92, 292] \<Longrightarrow> \<not> token_word mozjs_ts_lex s mozjs_sym_identifier w"
proof (rule mozjs_switch.avoids_token_word)
  show "avoids mozjs_lex_cases [11, 90, 91, 92, 292] mozjs_sym_identifier"
    by (simp add: avoids_def mozjs_lex_list mozjs_lex_defs)
qed simp_all

definition js_escape_rest :: regex where
  "js_escape_rest = Alt
     (Seq (Class js_hex) (Seq (Class js_hex) (Seq (Class js_hex) (Class js_hex))))
     (Seq (Char CH_LBRACE) (Seq (Plus (Class js_hex)) (Char CH_RBRACE)))"

definition js_identifier_tail :: regex where
  "js_identifier_tail = Star (Alt (Class js_identifier_char) js_unicode_escape)"

lemma js_identifier_not_blank:
  "js_identifier_char c \<Longrightarrow> \<not> (CH_TAB \<le> c \<and> c \<le> CH_CR) \<and> c \<noteq> CH_SPACE \<and> c \<noteq> CH_BACKSLASH"
  by (auto simp: js_identifier_char_def js_white_space_def js_punctuation_def)

lemma matches_Class_Cons: "matches (Seq (Class p) q) (c # w) \<longleftrightarrow> p c \<and> matches q w"
  by (simp add: matches_Cons)

lemma matches_Star_Class_Cons:
  "matches (Seq (Star (Class p)) q) (c # w) \<longleftrightarrow> p c \<and> matches (Seq (Star (Class p)) q) w \<or> matches q (c # w)"
  by (auto simp: matches_Cons)

lemma js_identifier_tail_Cons:
  "matches js_identifier_tail (c # w) \<longleftrightarrow>
     (if c = CH_BACKSLASH then matches (Seq (Char CH_u) (Seq js_escape_rest js_identifier_tail)) w
      else js_identifier_char c \<and> matches js_identifier_tail w)"
  using js_identifier_not_blank [of c]
  by (cases w) (auto simp: matches_Cons matches_Nil js_identifier_tail_def js_unicode_escape_def js_escape_rest_def)

lemma js_escape_rest_Cons:
  "matches (Seq js_escape_rest q) (c # w) \<longleftrightarrow>
     js_hex c \<and> matches (Seq (Class js_hex) (Seq (Class js_hex) (Seq (Class js_hex) q))) w \<or>
     c = CH_LBRACE \<and> matches (Seq (Plus (Class js_hex)) (Seq (Char CH_RBRACE) q)) w"
proof -
  have "matches (Seq p (Seq (Seq a b) r)) v = matches (Seq p (Seq a (Seq b r))) v" for p a b r v
    by (simp add: matches_Seq [of p])
  then show ?thesis by (simp add: matches_Cons js_escape_rest_def)
qed

lemma js_identifier_letters:
  "js_identifier_char CH_a" "js_identifier_char CH_c" "js_identifier_char CH_i" "js_identifier_char CH_t"
  "\<not> js_identifier_char CH_SPACE" "\<not> js_identifier_char CH_BACKSLASH"
  by (simp_all add: js_identifier_char_def js_white_space_def js_punctuation_def)

lemma js_identifier_next:
  assumes "js_char c" "s \<in> set [281, 282, 283, 284, 285, 287, 288]"
  shows "case lex_next mozjs_ts_lex s c of
      None \<Rightarrow> \<not> js_identifier_char c \<and> c \<noteq> CH_BACKSLASH
    | Some t \<Rightarrow> if c = CH_BACKSLASH then t = 94
        else if js_identifier_char c then t \<in> set [281, 282, 283, 284, 285, 287, 288] else t = 91"
  using assms(2) js_identifier_not_blank [of c] mozjs_in_identifier_char [OF assms(1)] js_identifier_letters
  unfolding set_simps insert_iff empty_iff
  by (elim disjE; simp add: mozjs_auto mozjs_lex_defs)

lemma js_escape_next:
  "lex_next mozjs_ts_lex 94 c = (if c = CH_u then Some 99 else None)"
  "lex_next mozjs_ts_lex 99 c = (if c = CH_LBRACE then Some 122 else if js_hex c then Some 130 else None)"
  "lex_next mozjs_ts_lex 130 c = (if js_hex c then Some 127 else None)"
  "lex_next mozjs_ts_lex 127 c = (if js_hex c then Some 114 else None)"
  "lex_next mozjs_ts_lex 114 c = (if js_hex c then Some 288 else None)"
  "lex_next mozjs_ts_lex 122 c = (if js_hex c then Some 102 else None)"
  "lex_next mozjs_ts_lex 102 c = (if c = CH_RBRACE then Some 288 else if js_hex c then Some 102 else None)"
  by (simp_all add: mozjs_auto mozjs_lex_defs js_hex_def js_digit_def)

lemma js_hex_not_brace: "\<not> js_hex CH_LBRACE" "\<not> js_hex CH_RBRACE"
  by (simp_all add: js_hex_def js_digit_def)

lemma js_identifier_accepts:
  "s \<in> set [281, 282, 283, 284, 285, 287, 288] \<Longrightarrow> state_accepts mozjs_ts_lex s = Some mozjs_sym_identifier"
  "s \<in> set [94, 99, 130, 127, 114, 122, 102] \<Longrightarrow> state_accepts mozjs_ts_lex s = None"
  by (auto simp: mozjs_auto mozjs_lex_defs)

lemma js_identifier_tail_language:
  "js_text w \<Longrightarrow>
     (\<forall>s\<in>set [281, 282, 283, 284, 285, 287, 288].
        token_word mozjs_ts_lex s mozjs_sym_identifier w \<longleftrightarrow> matches js_identifier_tail w) \<and>
     (token_word mozjs_ts_lex 94 mozjs_sym_identifier w \<longleftrightarrow>
        matches (Seq (Char CH_u) (Seq js_escape_rest js_identifier_tail)) w) \<and>
     (token_word mozjs_ts_lex 99 mozjs_sym_identifier w \<longleftrightarrow> matches (Seq js_escape_rest js_identifier_tail) w) \<and>
     (token_word mozjs_ts_lex 130 mozjs_sym_identifier w \<longleftrightarrow>
        matches (Seq (Class js_hex) (Seq (Class js_hex) (Seq (Class js_hex) js_identifier_tail))) w) \<and>
     (token_word mozjs_ts_lex 127 mozjs_sym_identifier w \<longleftrightarrow>
        matches (Seq (Class js_hex) (Seq (Class js_hex) js_identifier_tail)) w) \<and>
     (token_word mozjs_ts_lex 114 mozjs_sym_identifier w \<longleftrightarrow> matches (Seq (Class js_hex) js_identifier_tail) w) \<and>
     (token_word mozjs_ts_lex 122 mozjs_sym_identifier w \<longleftrightarrow>
        matches (Seq (Plus (Class js_hex)) (Seq (Char CH_RBRACE) js_identifier_tail)) w) \<and>
     (token_word mozjs_ts_lex 102 mozjs_sym_identifier w \<longleftrightarrow>
        matches (Seq (Star (Class js_hex)) (Seq (Char CH_RBRACE) js_identifier_tail)) w)"
proof (induction w)
  case Nil
  then show ?case
    by (simp add: token_word_Nil js_identifier_accepts matches_Nil js_identifier_tail_def js_escape_rest_def Plus_def)
next
  case (Cons c w)
  have c: "js_char c" "js_text w" using Cons.prems by auto
  note IH = Cons.IH [OF c(2)]
  have tail: "token_word mozjs_ts_lex s mozjs_sym_identifier (c # w) \<longleftrightarrow> matches js_identifier_tail (c # w)"
    if "s \<in> set [281, 282, 283, 284, 285, 287, 288]" for s
    using js_identifier_next [OF c(1) that] IH js_static_get_states [of 91 w]
    by (auto simp: token_word_Cons js_identifier_tail_Cons split: option.splits if_splits)
  have "matches (Seq (Plus (Class js_hex)) q) (c # w) \<longleftrightarrow> js_hex c \<and> matches (Seq (Star (Class js_hex)) q) w" for q
    by (simp add: Plus_def matches_Class_Cons)
  then show ?case
    using IH tail js_hex_not_brace
    by (auto simp: token_word_Cons js_escape_next js_escape_rest_Cons matches_Class_Cons matches_Star_Class_Cons)
qed

end
