(* ===== verification/Mozjs_Number.thy ===== *)
theory Mozjs_Number
  imports Mozjs_Text
begin

text \<open>The numbers of JavaScript: the states behind a digit or a dot against the expression of the grammar.\<close>

section \<open>The expression\<close>

text \<open>Digits with single underscores between them.\<close>

definition js_more_digits :: "(codepoint \<Rightarrow> bool) \<Rightarrow> regex" where
  "js_more_digits p = Star (Seq (Opt (Char CH_UNDERSCORE)) (Class p))"

definition js_digits :: "(codepoint \<Rightarrow> bool) \<Rightarrow> regex" where
  "js_digits p = Seq (Class p) (js_more_digits p)"

definition js_binary :: "codepoint \<Rightarrow> bool" where "js_binary c \<longleftrightarrow> c = CH_0 \<or> c = CH_1"

definition js_octal :: "codepoint \<Rightarrow> bool" where "js_octal c \<longleftrightarrow> CH_0 \<le> c \<and> c \<le> CH_7"

definition js_radix_literal :: "codepoint \<Rightarrow> codepoint \<Rightarrow> (codepoint \<Rightarrow> bool) \<Rightarrow> regex" where
  "js_radix_literal x X p = Seq (Alt (Word [CH_0, x]) (Word [CH_0, X])) (js_digits p)"

definition js_signed_integer :: regex where
  "js_signed_integer = Seq (Opt (Alt (Char CH_MINUS) (Char CH_PLUS))) (js_digits js_digit)"

definition js_exponent_part :: regex where
  "js_exponent_part = Seq (Alt (Char CH_e) (Char CH_E)) js_signed_integer"

definition js_decimal_integer :: regex where
  "js_decimal_integer = Alt (Char CH_0)
     (Seq (Opt (Char CH_0)) (Seq (Class (\<lambda>c. CH_1 \<le> c \<and> c \<le> CH_9))
       (Opt (Seq (Opt (Char CH_UNDERSCORE)) (js_digits js_digit)))))"

definition js_decimal_literal :: regex where
  "js_decimal_literal =
     Alt (Seq js_decimal_integer (Seq (Char CH_DOT) (Seq (Opt (js_digits js_digit)) (Opt js_exponent_part))))
    (Alt (Seq (Char CH_DOT) (Seq (js_digits js_digit) (Opt js_exponent_part)))
    (Alt (Seq js_decimal_integer js_exponent_part) (js_digits js_digit)))"

definition js_number_regex :: regex where
  "js_number_regex = (
     let hex = js_radix_literal CH_x CH_X js_hex;
         binary = js_radix_literal CH_b CH_B js_binary;
         octal = js_radix_literal CH_o CH_O js_octal
     in Alt hex (Alt js_decimal_literal (Alt binary (Alt octal
          (Seq (Alt hex (Alt binary (Alt octal (js_digits js_digit)))) (Char CH_n))))))"

section \<open>Words by their first character\<close>

lemma js_more_digits_Nil: "matches (Seq (js_more_digits p) q) [] \<longleftrightarrow> matches q []"
  by (simp add: matches_Nil js_more_digits_def)

lemma js_more_digits_Cons:
  "matches (Seq (js_more_digits p) q) (c # w) \<longleftrightarrow>
     c = CH_UNDERSCORE \<and> matches (Seq (Class p) (Seq (js_more_digits p) q)) w \<or>
     p c \<and> matches (Seq (js_more_digits p) q) w \<or> matches q (c # w)"
  by (auto simp: matches_Cons js_more_digits_def Opt_def)

lemma js_more_digits_alone: "matches (js_more_digits p) w \<longleftrightarrow> matches (Seq (js_more_digits p) Eps) w"
  by (auto simp: matches_Seq)

lemma js_digits_Seq: "matches (Seq (js_digits p) q) w \<longleftrightarrow> matches (Seq (Class p) (Seq (js_more_digits p) q)) w"
  by (simp add: js_digits_def)

text \<open>An optional group of an underscore and digits is what more digits are.\<close>

lemma js_optional_digits:
  "matches (Seq (Opt (Seq (Opt (Char CH_UNDERSCORE)) (js_digits p))) q) w \<longleftrightarrow> matches (Seq (js_more_digits p) q) w"
proof (cases w)
  case Nil
  then show ?thesis by (simp add: Opt_def matches_Nil js_more_digits_def js_digits_def)
next
  case (Cons c v)
  then show ?thesis by (auto simp: Opt_def matches_Cons js_more_digits_def js_digits_def)
qed

section \<open>The states\<close>

lemma js_number_next:
  "lex_next mozjs_ts_lex 278 c = (if c = CH_UNDERSCORE then Some 113 else if js_digit c then Some 278 else None)"
  "lex_next mozjs_ts_lex 113 c = (if js_digit c then Some 278 else None)"
  "lex_next mozjs_ts_lex 106 c = (if c = CH_PLUS \<or> c = CH_MINUS then Some 113 else if js_digit c then Some 278 else None)"
  "lex_next mozjs_ts_lex 277 c = (if c = CH_UNDERSCORE then Some 111 else if c = CH_E \<or> c = CH_e then Some 106
     else if js_digit c then Some 277 else None)"
  "lex_next mozjs_ts_lex 111 c = (if js_digit c then Some 277 else None)"
  "lex_next mozjs_ts_lex 279 c = (if c = CH_E \<or> c = CH_e then Some 106 else if js_digit c then Some 277 else None)"
  "lex_next mozjs_ts_lex 270 c = None"
  "lex_next mozjs_ts_lex 273 c = (if c = CH_UNDERSCORE then Some 112 else if c = CH_n then Some 270
     else if js_digit c then Some 273 else None)"
  "lex_next mozjs_ts_lex 112 c = (if js_digit c then Some 273 else None)"
  "lex_next mozjs_ts_lex 272 c = (if c = CH_DOT then Some 279 else if c = CH_UNDERSCORE then Some 110
     else if c = CH_n then Some 270 else if c = CH_E \<or> c = CH_e then Some 106 else if js_digit c then Some 272 else None)"
  "lex_next mozjs_ts_lex 110 c = (if js_digit c then Some 272 else None)"
  "lex_next mozjs_ts_lex 274 c = (if c = CH_UNDERSCORE then Some 108 else if c = CH_n then Some 270
     else if js_binary c then Some 274 else None)"
  "lex_next mozjs_ts_lex 108 c = (if js_binary c then Some 274 else None)"
  "lex_next mozjs_ts_lex 275 c = (if c = CH_UNDERSCORE then Some 109 else if c = CH_n then Some 270
     else if js_octal c then Some 275 else None)"
  "lex_next mozjs_ts_lex 109 c = (if js_octal c then Some 275 else None)"
  "lex_next mozjs_ts_lex 276 c = (if c = CH_UNDERSCORE then Some 116 else if c = CH_n then Some 270
     else if js_hex c then Some 276 else None)"
  "lex_next mozjs_ts_lex 116 c = (if js_hex c then Some 276 else None)"
  "lex_next mozjs_ts_lex 271 c = (if c = CH_DOT then Some 279 else if c = CH_0 then Some 273
     else if c = CH_UNDERSCORE then Some 112 else if c = CH_n then Some 270
     else if c = CH_B \<or> c = CH_b then Some 108 else if c = CH_E \<or> c = CH_e then Some 106
     else if c = CH_O \<or> c = CH_o then Some 109 else if c = CH_X \<or> c = CH_x then Some 116
     else if js_digit c then Some 272 else None)"
  by (auto simp: mozjs_auto mozjs_lex_defs js_digit_def js_hex_def js_octal_def js_binary_def)

lemma js_number_accepts:
  "s \<in> set [270, 271, 272, 273, 274, 275, 276, 277, 278, 279] \<Longrightarrow> state_accepts mozjs_ts_lex s = Some mozjs_sym_number"
  "s \<in> set [106, 108, 109, 110, 111, 112, 113, 116] \<Longrightarrow> state_accepts mozjs_ts_lex s = None"
  by (auto simp: mozjs_auto mozjs_lex_defs)

abbreviation js_number_word :: "TSStateId \<Rightarrow> codepoint list \<Rightarrow> bool" where
  "js_number_word s w \<equiv> token_word mozjs_ts_lex s mozjs_sym_number w"

lemma js_digit_classes:
  "js_digit c \<Longrightarrow> js_hex c" "js_octal c \<Longrightarrow> js_digit c" "js_binary c \<Longrightarrow> js_octal c"
  "js_digit c \<Longrightarrow> c \<notin> {CH_UNDERSCORE, CH_DOT, CH_n, CH_E, CH_e, CH_PLUS, CH_MINUS, CH_B, CH_b, CH_O, CH_o, CH_X, CH_x}"
  "js_hex c \<Longrightarrow> c \<notin> {CH_UNDERSCORE, CH_DOT, CH_n, CH_PLUS, CH_MINUS, CH_O, CH_o, CH_X, CH_x}"
  by (auto simp: js_digit_def js_hex_def js_octal_def js_binary_def)

lemma js_big_language: "js_number_word 270 w \<longleftrightarrow> matches Eps w"
  by (cases w) (simp_all add: token_word_Nil token_word_Cons js_number_next js_number_accepts)

text \<open>The four radixes, with the big integers of each.\<close>

lemma js_radix_language:
  assumes next1: "\<And>c. lex_next mozjs_ts_lex s c = (if c = CH_UNDERSCORE then Some t else if c = CH_n then Some 270
      else if p c then Some s else None)"
    and next2: "\<And>c. lex_next mozjs_ts_lex t c = (if p c then Some s else None)"
    and "state_accepts mozjs_ts_lex s = Some mozjs_sym_number" "state_accepts mozjs_ts_lex t = None"
    and p: "\<not> p CH_UNDERSCORE" "\<not> p CH_n"
  shows "(js_number_word s w \<longleftrightarrow> matches (Seq (js_more_digits p) (Opt (Char CH_n))) w) \<and>
    (js_number_word t w \<longleftrightarrow> matches (Seq (Class p) (Seq (js_more_digits p) (Opt (Char CH_n)))) w)"
proof (induction w)
  case Nil
  then show ?case
    by (simp add: token_word_Nil assms js_more_digits_Nil matches_Nil Opt_def js_more_digits_def)
next
  case (Cons c w)
  have "matches (Opt (Char CH_n)) (c # w) \<longleftrightarrow> c = CH_n \<and> matches Eps w" by (simp add: matches_Cons Opt_def)
  then show ?case using Cons p
    by (auto simp: token_word_Cons next1 next2 js_more_digits_Cons matches_Class_Cons js_big_language)
qed

lemma js_exponent_language:
  "(js_number_word 278 w \<longleftrightarrow> matches (Seq (js_more_digits js_digit) Eps) w) \<and>
   (js_number_word 113 w \<longleftrightarrow> matches (Seq (Class js_digit) (Seq (js_more_digits js_digit) Eps)) w)"
proof (induction w)
  case Nil
  then show ?case by (simp add: token_word_Nil js_number_accepts matches_Nil js_more_digits_def)
next
  case (Cons c w)
  then show ?case using js_digit_classes(4) [of c]
    by (auto simp: token_word_Cons js_number_next js_more_digits_Cons matches_Class_Cons)
qed

text \<open>Behind the letter of an exponent.\<close>

lemma js_signed_Cons:
  "matches js_signed_integer (c # w) \<longleftrightarrow>
     (c = CH_PLUS \<or> c = CH_MINUS) \<and> matches (Seq (Class js_digit) (Seq (js_more_digits js_digit) Eps)) w \<or>
     js_digit c \<and> matches (Seq (js_more_digits js_digit) Eps) w"
proof -
  have "matches (js_digits js_digit) v = matches (Seq (Class js_digit) (Seq (js_more_digits js_digit) Eps)) v" for v
    by (simp add: js_digits_def matches_Seq [of "Class js_digit"] js_more_digits_alone)
  moreover from this have "matches (deriv c (js_digits js_digit)) w \<longleftrightarrow>
      js_digit c \<and> matches (Seq (js_more_digits js_digit) Eps) w"
    by (simp add: matches_Cons [symmetric] matches_Class_Cons)
  ultimately show ?thesis
    using js_digit_classes(4) [of c] by (auto simp: js_signed_integer_def Opt_def matches_Cons)
qed

lemma js_signed_language: "js_number_word 106 w \<longleftrightarrow> matches js_signed_integer w"
proof (cases w)
  case Nil
  then show ?thesis
    by (simp add: token_word_Nil js_number_accepts matches_Nil js_signed_integer_def js_digits_def Opt_def)
next
  case (Cons c v)
  then show ?thesis using js_exponent_language [of v] js_digit_classes(4) [of c]
    by (auto simp: token_word_Cons js_number_next js_signed_Cons)
qed

lemma js_exponent_Cons:
  "matches (Opt js_exponent_part) (c # w) \<longleftrightarrow> (c = CH_e \<or> c = CH_E) \<and> matches js_signed_integer w"
  "matches js_exponent_part (c # w) \<longleftrightarrow> (c = CH_e \<or> c = CH_E) \<and> matches js_signed_integer w"
  by (auto simp: js_exponent_part_def matches_Cons Opt_def)

text \<open>Behind the digits of a fraction, and behind the dot of a decimal.\<close>

lemma js_fraction_language:
  "(js_number_word 277 w \<longleftrightarrow> matches (Seq (js_more_digits js_digit) (Opt js_exponent_part)) w) \<and>
   (js_number_word 111 w \<longleftrightarrow> matches (Seq (Class js_digit) (Seq (js_more_digits js_digit) (Opt js_exponent_part))) w)"
proof (induction w)
  case Nil
  then show ?case
    by (simp add: token_word_Nil js_number_accepts js_more_digits_Nil) (simp add: matches_Nil Opt_def)
next
  case (Cons c w)
  then show ?case using js_digit_classes(4) [of c]
    by (auto simp: token_word_Cons js_number_next js_more_digits_Cons matches_Class_Cons js_exponent_Cons
        js_signed_language)
qed

lemma js_point_Cons:
  "matches (Seq (Opt (js_digits js_digit)) (Opt js_exponent_part)) (c # w) \<longleftrightarrow>
     js_digit c \<and> matches (Seq (js_more_digits js_digit) (Opt js_exponent_part)) w \<or>
     (c = CH_e \<or> c = CH_E) \<and> matches js_signed_integer w"
  unfolding js_exponent_Cons(1) [of c w, symmetric]
  by (auto simp: matches_Cons Opt_def js_digits_def)

lemma js_point_language:
  "js_number_word 279 w \<longleftrightarrow> matches (Seq (Opt (js_digits js_digit)) (Opt js_exponent_part)) w"
proof (cases w)
  case Nil
  then show ?thesis by (simp add: token_word_Nil js_number_accepts matches_Nil Opt_def)
next
  case (Cons c v)
  then show ?thesis using js_digit_classes(4) [of c]
    by (auto simp: token_word_Cons js_number_next js_point_Cons js_fraction_language js_signed_language)
qed

text \<open>What may end a decimal integer: nothing, the mark of a big integer, a fraction or an exponent.\<close>

definition js_decimal_end :: regex where
  "js_decimal_end = Alt (Opt (Char CH_n)) (Alt (Seq (Char CH_DOT)
     (Seq (Opt (js_digits js_digit)) (Opt js_exponent_part))) js_exponent_part)"

lemma js_decimal_end_Cons:
  "matches js_decimal_end (c # w) \<longleftrightarrow> c = CH_n \<and> matches Eps w \<or>
     c = CH_DOT \<and> matches (Seq (Opt (js_digits js_digit)) (Opt js_exponent_part)) w \<or>
     (c = CH_e \<or> c = CH_E) \<and> matches js_signed_integer w"
proof -
  have "matches (Opt (Char CH_n)) (c # w) \<longleftrightarrow> c = CH_n \<and> matches Eps w" by (simp add: matches_Cons Opt_def)
  then show ?thesis by (simp add: js_decimal_end_def js_exponent_Cons matches_Class_Cons)
qed

lemma js_decimal_language:
  "(js_number_word 272 w \<longleftrightarrow> matches (Seq (js_more_digits js_digit) js_decimal_end) w) \<and>
   (js_number_word 110 w \<longleftrightarrow> matches (Seq (Class js_digit) (Seq (js_more_digits js_digit) js_decimal_end)) w)"
proof (induction w)
  case Nil
  then show ?case
    by (simp add: token_word_Nil js_number_accepts js_more_digits_Nil) (simp add: matches_Nil js_decimal_end_def Opt_def)
next
  case (Cons c w)
  then show ?case using js_digit_classes(4) [of c]
    by (auto simp: token_word_Cons js_number_next js_more_digits_Cons matches_Class_Cons js_decimal_end_Cons
        js_point_language js_signed_language js_big_language)
qed

section \<open>Behind a zero\<close>

lemma js_legacy_language:
  "(js_number_word 273 w \<longleftrightarrow> matches (Seq (js_more_digits js_digit) (Opt (Char CH_n))) w) \<and>
   (js_number_word 112 w \<longleftrightarrow> matches (Seq (Class js_digit) (Seq (js_more_digits js_digit) (Opt (Char CH_n)))) w)"
  by (rule js_radix_language) (simp_all add: js_number_next js_number_accepts js_digit_def)

lemma js_radix_languages:
  "js_number_word 108 w \<longleftrightarrow> matches (Seq (Class js_binary) (Seq (js_more_digits js_binary) (Opt (Char CH_n)))) w"
  "js_number_word 109 w \<longleftrightarrow> matches (Seq (Class js_octal) (Seq (js_more_digits js_octal) (Opt (Char CH_n)))) w"
  "js_number_word 116 w \<longleftrightarrow> matches (Seq (Class js_hex) (Seq (js_more_digits js_hex) (Opt (Char CH_n)))) w"
proof -
  have "(js_number_word 274 w \<longleftrightarrow> matches (Seq (js_more_digits js_binary) (Opt (Char CH_n))) w) \<and>
    (js_number_word 108 w \<longleftrightarrow> matches (Seq (Class js_binary) (Seq (js_more_digits js_binary) (Opt (Char CH_n)))) w)"
    by (rule js_radix_language) (simp_all add: js_number_next js_number_accepts js_binary_def)
  moreover have "(js_number_word 275 w \<longleftrightarrow> matches (Seq (js_more_digits js_octal) (Opt (Char CH_n))) w) \<and>
    (js_number_word 109 w \<longleftrightarrow> matches (Seq (Class js_octal) (Seq (js_more_digits js_octal) (Opt (Char CH_n)))) w)"
    by (rule js_radix_language) (simp_all add: js_number_next js_number_accepts js_octal_def)
  moreover have "(js_number_word 276 w \<longleftrightarrow> matches (Seq (js_more_digits js_hex) (Opt (Char CH_n))) w) \<and>
    (js_number_word 116 w \<longleftrightarrow> matches (Seq (Class js_hex) (Seq (js_more_digits js_hex) (Opt (Char CH_n)))) w)"
    by (rule js_radix_language) (simp_all add: js_number_next js_number_accepts js_hex_def js_digit_def)
  ultimately show
    "js_number_word 108 w \<longleftrightarrow> matches (Seq (Class js_binary) (Seq (js_more_digits js_binary) (Opt (Char CH_n)))) w"
    "js_number_word 109 w \<longleftrightarrow> matches (Seq (Class js_octal) (Seq (js_more_digits js_octal) (Opt (Char CH_n)))) w"
    "js_number_word 116 w \<longleftrightarrow> matches (Seq (Class js_hex) (Seq (js_more_digits js_hex) (Opt (Char CH_n)))) w"
    by blast+
qed

definition js_radix_rest :: "codepoint \<Rightarrow> codepoint \<Rightarrow> (codepoint \<Rightarrow> bool) \<Rightarrow> regex" where
  "js_radix_rest x X p =
     Seq (Class (\<lambda>c. c = x \<or> c = X)) (Seq (Class p) (Seq (js_more_digits p) (Opt (Char CH_n))))"

definition js_after_zero :: regex where
  "js_after_zero = Alt (Seq (js_more_digits js_digit) (Opt (Char CH_n))) (Alt js_decimal_end
     (Alt (Seq (Class (\<lambda>c. CH_1 \<le> c \<and> c \<le> CH_9)) (Seq (js_more_digits js_digit) js_decimal_end))
     (Alt (js_radix_rest CH_x CH_X js_hex) (Alt (js_radix_rest CH_b CH_B js_binary) (js_radix_rest CH_o CH_O js_octal)))))"

lemma js_decimal_end_big:
  "matches (Seq r (Opt (Char CH_n))) w \<Longrightarrow> matches (Seq r js_decimal_end) w"
  by (auto simp: matches_Seq js_decimal_end_def)

lemma js_zero_language: "js_number_word 271 w \<longleftrightarrow> matches js_after_zero w"
proof (cases w)
  case Nil
  then show ?thesis
    by (simp add: token_word_Nil js_number_accepts matches_Nil js_after_zero_def js_more_digits_def Opt_def)
next
  case (Cons c v)
  have big: "matches (Opt (Char CH_n)) (c # v) \<longleftrightarrow> c = CH_n \<and> matches Eps v" by (simp add: matches_Cons Opt_def)
  have digit: "CH_1 \<le> c \<and> c \<le> CH_9 \<longleftrightarrow> js_digit c \<and> c \<noteq> CH_0" by (auto simp: js_digit_def)
  have "js_digit CH_0" by (simp add: js_digit_def)
  then show ?thesis
    using js_digit_classes(4) [of c] js_decimal_end_big [of "js_more_digits js_digit" v]
    unfolding Cons js_after_zero_def js_radix_rest_def
    by (auto simp: token_word_Cons js_number_next matches_Class_Cons js_more_digits_Cons big digit js_decimal_end_Cons
        js_point_language js_signed_language js_big_language js_radix_languages js_legacy_language js_decimal_language)
qed

section \<open>The expression by its first character\<close>

lemma matches_Seq_right_Alt:
  "matches (Seq r (Alt a b)) w \<longleftrightarrow> matches (Seq r a) w \<or> matches (Seq r b) w"
  by (auto simp: matches_Seq)

lemma matches_Seq_right_Eps: "matches (Seq r Eps) w \<longleftrightarrow> matches r w"
  by (auto simp: matches_Seq)

lemma js_radix_literal_Cons:
  "matches (Seq (js_radix_literal x X p) q) (c # w) \<longleftrightarrow> c = CH_0 \<and>
     matches (Seq (Class (\<lambda>c. c = x \<or> c = X)) (Seq (Class p) (Seq (js_more_digits p) q))) w"
  by (cases w) (auto simp: js_radix_literal_def js_digits_def matches_Cons matches_Nil)

lemma js_decimal_integer_Cons:
  "matches (Seq js_decimal_integer q) (c # w) \<longleftrightarrow>
     c = CH_0 \<and> (matches q w \<or>
       matches (Seq (Class (\<lambda>c. CH_1 \<le> c \<and> c \<le> CH_9)) (Seq (js_more_digits js_digit) q)) w) \<or>
     CH_1 \<le> c \<and> c \<le> CH_9 \<and> matches (Seq (js_more_digits js_digit) q) w"
proof -
  have "matches (Seq (Class f) (Seq (Opt (Seq (Opt (Char CH_UNDERSCORE)) (js_digits js_digit))) q)) v =
      matches (Seq (Class f) (Seq (js_more_digits js_digit) q)) v" for f v
    by (simp add: matches_Seq [of "Class f"] js_optional_digits)
  moreover have "matches (Seq (Alt (Char z) (Seq (Opt (Char z)) (Seq (Class f) more))) q) (c # w) \<longleftrightarrow>
      c = z \<and> (matches q w \<or> matches (Seq (Class f) (Seq more q)) w) \<or> f c \<and> matches (Seq more q) w" for z f more
    by (auto simp: matches_Cons Opt_def)
  ultimately show ?thesis by (simp add: js_decimal_integer_def js_optional_digits)
qed

lemma js_number_Cons:
  "matches js_number_regex (c # w) \<longleftrightarrow>
     c = CH_0 \<and> matches js_after_zero w \<or>
     CH_1 \<le> c \<and> c \<le> CH_9 \<and> matches (Seq (js_more_digits js_digit) js_decimal_end) w \<or>
     c = CH_DOT \<and> matches (Seq (Class js_digit) (Seq (js_more_digits js_digit) (Opt js_exponent_part))) w"
proof -
  have radix: "matches (js_radix_literal x X p) (c # w) \<or> matches (Seq (js_radix_literal x X p) (Char CH_n)) (c # w)
      \<longleftrightarrow> c = CH_0 \<and> matches (js_radix_rest x X p) w" for x X p
  proof -
    have "matches (js_radix_literal x X p) (c # w) = matches (Seq (js_radix_literal x X p) Eps) (c # w)"
      by (simp add: matches_Seq_right_Eps)
    then show ?thesis
      by (auto simp: js_radix_literal_Cons js_radix_rest_def Opt_def matches_Seq [of "Class _"] matches_Seq_right_Alt)
  qed
  have digits: "matches (js_digits js_digit) (c # w) \<or> matches (Seq (js_digits js_digit) (Char CH_n)) (c # w)
      \<longleftrightarrow> js_digit c \<and> matches (Seq (js_more_digits js_digit) (Opt (Char CH_n))) w"
    by (auto simp: js_digits_def Opt_def matches_Cons matches_Seq_right_Alt matches_Seq_right_Eps)
  have point: "matches (Seq (Char CH_DOT) q) (c # w) \<longleftrightarrow> c = CH_DOT \<and> matches q w" for q
    by (simp add: matches_Class_Cons)
  let ?more = "js_more_digits js_digit" and ?n = "Opt (Char CH_n)" and ?one = "Class (\<lambda>c. CH_1 \<le> c \<and> c \<le> CH_9)"
  have ctx: "matches (Seq ?one (Seq r (Alt a b))) v \<longleftrightarrow> matches (Seq ?one (Seq r a)) v \<or> matches (Seq ?one (Seq r b)) v"
    for r a b v by (auto simp: matches_Seq [of ?one] matches_Seq_right_Alt)
  have sub: "matches ?n v \<Longrightarrow> matches (Seq ?more ?n) v" "matches (Seq ?one (Seq ?more ?n)) v \<Longrightarrow> matches (Seq ?more ?n) v"
    for v
    by (simp add: js_more_digits_def matches_Seq_Star)
      (cases v; auto simp: matches_Nil matches_Class_Cons js_more_digits_Cons js_digit_def)
  have digit: "js_digit c \<longleftrightarrow> c = CH_0 \<or> CH_1 \<le> c \<and> c \<le> CH_9" by (auto simp: js_digit_def)
  have exp: "matches (Seq js_decimal_integer js_exponent_part) (c # w) \<or> matches (Seq js_decimal_integer (Seq (Char CH_DOT)
      (Seq (Opt (js_digits js_digit)) (Opt js_exponent_part)))) (c # w) \<or> js_digit c \<and> matches (Seq ?more ?n) w \<longleftrightarrow>
    c = CH_0 \<and> (matches (Seq ?more ?n) w \<or> matches js_decimal_end w \<or> matches (Seq ?one (Seq ?more js_decimal_end)) w) \<or>
    CH_1 \<le> c \<and> c \<le> CH_9 \<and> matches (Seq ?more js_decimal_end) w"
    unfolding js_decimal_integer_Cons js_decimal_end_def ctx matches_Seq_right_Alt matches_Alt digit
    using sub [of w] by blast
  have "matches js_number_regex (c # w) \<longleftrightarrow> c = CH_0 \<and> (matches (js_radix_rest CH_x CH_X js_hex) w \<or>
      matches (js_radix_rest CH_b CH_B js_binary) w \<or> matches (js_radix_rest CH_o CH_O js_octal) w) \<or>
    (matches (Seq js_decimal_integer js_exponent_part) (c # w) \<or> matches (Seq js_decimal_integer (Seq (Char CH_DOT)
      (Seq (Opt (js_digits js_digit)) (Opt js_exponent_part)))) (c # w) \<or> js_digit c \<and> matches (Seq ?more ?n) w) \<or>
    c = CH_DOT \<and> matches (Seq (js_digits js_digit) (Opt js_exponent_part)) w"
    unfolding digits [symmetric] point [symmetric] js_number_regex_def js_decimal_literal_def Let_def
      matches_Alt matches_Seq_Alt
    using radix [of CH_x CH_X js_hex] radix [of CH_b CH_B js_binary] radix [of CH_o CH_O js_octal] by blast
  then show ?thesis unfolding exp js_digits_Seq js_after_zero_def matches_Alt by blast
qed

end
