(* ===== verification/Mozjs_Tokens.thy ===== *)
theory Mozjs_Tokens
  imports Mozjs_Number
begin

text \<open>
  Identifiers, numbers and comments of JavaScript where code stands: each lex state of such a place accepts
  blanks followed by the expression of the grammar, nothing else.
\<close>

section \<open>States that cannot reach a token\<close>

lemma avoids_table:
  assumes "list_all (\<lambda>(s, f). cases ! s = f) T"
    and "list_all (\<lambda>(s, f). fst (f False 0) \<noteq> Some y \<and> (\<forall>c. goto_within (map fst T) (snd (f False c)))) T"
  shows "avoids cases (map fst T) y"
  using assms by (fastforce simp: avoids_def list_all_iff)

text \<open>The cases of the states behind the first character of a token.\<close>

definition mozjs_other_cases :: "(TSStateId \<times> (bool \<Rightarrow> codepoint \<Rightarrow> lex_case)) list" where
  "mozjs_other_cases = [
    (1, mozjs_lex_1), (2, mozjs_lex_2), (3, mozjs_lex_3), (4, mozjs_lex_4), (5, mozjs_lex_5), (6,
    mozjs_lex_6), (7, mozjs_lex_7), (8, mozjs_lex_8), (9, mozjs_lex_9), (10, mozjs_lex_10), (25,
    mozjs_lex_25), (40, mozjs_lex_40), (41, mozjs_lex_41), (42, mozjs_lex_42), (47, mozjs_lex_47),
    (48, mozjs_lex_48), (49, mozjs_lex_49), (50, mozjs_lex_50), (51, mozjs_lex_51), (52,
    mozjs_lex_52), (53, mozjs_lex_53), (54, mozjs_lex_54), (55, mozjs_lex_55), (56, mozjs_lex_56),
    (57, mozjs_lex_57), (58, mozjs_lex_58), (59, mozjs_lex_59), (60, mozjs_lex_60), (61,
    mozjs_lex_61), (62, mozjs_lex_62), (63, mozjs_lex_63), (64, mozjs_lex_64), (65, mozjs_lex_65),
    (66, mozjs_lex_66), (67, mozjs_lex_67), (68, mozjs_lex_68), (69, mozjs_lex_69), (70,
    mozjs_lex_70), (71, mozjs_lex_71), (72, mozjs_lex_72), (73, mozjs_lex_73), (74, mozjs_lex_74),
    (75, mozjs_lex_75), (76, mozjs_lex_76), (77, mozjs_lex_77), (78, mozjs_lex_78), (79,
    mozjs_lex_79), (80, mozjs_lex_80), (81, mozjs_lex_81), (82, mozjs_lex_82), (83, mozjs_lex_83),
    (84, mozjs_lex_84), (85, mozjs_lex_85), (89, mozjs_lex_89), (95, mozjs_lex_95), (100,
    mozjs_lex_100), (105, mozjs_lex_105), (107, mozjs_lex_107), (119, mozjs_lex_119), (120,
    mozjs_lex_120), (123, mozjs_lex_123), (128, mozjs_lex_128), (131, mozjs_lex_131), (140,
    mozjs_lex_140), (141, mozjs_lex_141), (142, mozjs_lex_142), (143, mozjs_lex_143), (144,
    mozjs_lex_144), (145, mozjs_lex_145), (146, mozjs_lex_146), (147, mozjs_lex_147), (148,
    mozjs_lex_148), (149, mozjs_lex_149), (150, mozjs_lex_150), (151, mozjs_lex_151), (152,
    mozjs_lex_152), (153, mozjs_lex_153), (154, mozjs_lex_154), (155, mozjs_lex_155), (156,
    mozjs_lex_156), (157, mozjs_lex_157), (158, mozjs_lex_158), (159, mozjs_lex_159), (161,
    mozjs_lex_161), (162, mozjs_lex_162), (163, mozjs_lex_163), (164, mozjs_lex_164), (165,
    mozjs_lex_165), (170, mozjs_lex_170), (172, mozjs_lex_172), (173, mozjs_lex_173), (186,
    mozjs_lex_186), (187, mozjs_lex_187), (188, mozjs_lex_188), (189, mozjs_lex_189), (190,
    mozjs_lex_190), (192, mozjs_lex_192), (193, mozjs_lex_193), (194, mozjs_lex_194), (195,
    mozjs_lex_195), (196, mozjs_lex_196), (197, mozjs_lex_197), (198, mozjs_lex_198), (199,
    mozjs_lex_199), (200, mozjs_lex_200), (201, mozjs_lex_201), (202, mozjs_lex_202), (204,
    mozjs_lex_204), (205, mozjs_lex_205), (206, mozjs_lex_206), (207, mozjs_lex_207), (208,
    mozjs_lex_208), (209, mozjs_lex_209), (210, mozjs_lex_210), (211, mozjs_lex_211), (212,
    mozjs_lex_212), (213, mozjs_lex_213), (214, mozjs_lex_214), (215, mozjs_lex_215), (216,
    mozjs_lex_216), (217, mozjs_lex_217), (218, mozjs_lex_218), (219, mozjs_lex_219), (220,
    mozjs_lex_220), (221, mozjs_lex_221), (222, mozjs_lex_222), (223, mozjs_lex_223), (226,
    mozjs_lex_226), (227, mozjs_lex_227), (228, mozjs_lex_228), (229, mozjs_lex_229), (230,
    mozjs_lex_230), (231, mozjs_lex_231), (232, mozjs_lex_232), (233, mozjs_lex_233), (234,
    mozjs_lex_234), (235, mozjs_lex_235), (236, mozjs_lex_236), (237, mozjs_lex_237), (238,
    mozjs_lex_238), (239, mozjs_lex_239), (240, mozjs_lex_240), (241, mozjs_lex_241), (242,
    mozjs_lex_242), (264, mozjs_lex_264), (289, mozjs_lex_289), (290, mozjs_lex_290), (291,
    mozjs_lex_291), (293, mozjs_lex_293)]"

definition mozjs_comment_cases :: "(TSStateId \<times> (bool \<Rightarrow> codepoint \<Rightarrow> lex_case)) list" where
  "mozjs_comment_cases = [
    (33, mozjs_lex_33), (35, mozjs_lex_35), (36, mozjs_lex_36), (191, mozjs_lex_191), (224,
    mozjs_lex_224), (225, mozjs_lex_225), (260, mozjs_lex_260), (263, mozjs_lex_263)]"

definition mozjs_identifier_cases :: "(TSStateId \<times> (bool \<Rightarrow> codepoint \<Rightarrow> lex_case)) list" where
  "mozjs_identifier_cases = [
    (11, mozjs_lex_11), (90, mozjs_lex_90), (91, mozjs_lex_91), (92, mozjs_lex_92), (94,
    mozjs_lex_94), (99, mozjs_lex_99), (102, mozjs_lex_102), (114, mozjs_lex_114), (122,
    mozjs_lex_122), (127, mozjs_lex_127), (130, mozjs_lex_130), (281, mozjs_lex_281), (282,
    mozjs_lex_282), (283, mozjs_lex_283), (284, mozjs_lex_284), (285, mozjs_lex_285), (287,
    mozjs_lex_287), (288, mozjs_lex_288), (292, mozjs_lex_292)]"

definition mozjs_number_cases :: "(TSStateId \<times> (bool \<Rightarrow> codepoint \<Rightarrow> lex_case)) list" where
  "mozjs_number_cases = [
    (39, mozjs_lex_39), (43, mozjs_lex_43), (106, mozjs_lex_106), (108, mozjs_lex_108), (109,
    mozjs_lex_109), (110, mozjs_lex_110), (111, mozjs_lex_111), (112, mozjs_lex_112), (113,
    mozjs_lex_113), (116, mozjs_lex_116), (169, mozjs_lex_169), (203, mozjs_lex_203), (270,
    mozjs_lex_270), (271, mozjs_lex_271), (272, mozjs_lex_272), (273, mozjs_lex_273), (274,
    mozjs_lex_274), (275, mozjs_lex_275), (276, mozjs_lex_276), (277, mozjs_lex_277), (278,
    mozjs_lex_278), (279, mozjs_lex_279)]"

lemmas mozjs_tables = mozjs_other_cases_def mozjs_comment_cases_def mozjs_identifier_cases_def mozjs_number_cases_def

lemmas mozjs_table_cases =
    mozjs_lex_1_def mozjs_lex_2_def mozjs_lex_3_def mozjs_lex_4_def mozjs_lex_5_def mozjs_lex_6_def
    mozjs_lex_7_def mozjs_lex_8_def mozjs_lex_9_def mozjs_lex_10_def mozjs_lex_11_def
    mozjs_lex_25_def mozjs_lex_33_def mozjs_lex_35_def mozjs_lex_36_def mozjs_lex_39_def
    mozjs_lex_40_def mozjs_lex_41_def mozjs_lex_42_def mozjs_lex_43_def mozjs_lex_47_def
    mozjs_lex_48_def mozjs_lex_49_def mozjs_lex_50_def mozjs_lex_51_def mozjs_lex_52_def
    mozjs_lex_53_def mozjs_lex_54_def mozjs_lex_55_def mozjs_lex_56_def mozjs_lex_57_def
    mozjs_lex_58_def mozjs_lex_59_def mozjs_lex_60_def mozjs_lex_61_def mozjs_lex_62_def
    mozjs_lex_63_def mozjs_lex_64_def mozjs_lex_65_def mozjs_lex_66_def mozjs_lex_67_def
    mozjs_lex_68_def mozjs_lex_69_def mozjs_lex_70_def mozjs_lex_71_def mozjs_lex_72_def
    mozjs_lex_73_def mozjs_lex_74_def mozjs_lex_75_def mozjs_lex_76_def mozjs_lex_77_def
    mozjs_lex_78_def mozjs_lex_79_def mozjs_lex_80_def mozjs_lex_81_def mozjs_lex_82_def
    mozjs_lex_83_def mozjs_lex_84_def mozjs_lex_85_def mozjs_lex_89_def mozjs_lex_90_def
    mozjs_lex_91_def mozjs_lex_92_def mozjs_lex_94_def mozjs_lex_95_def mozjs_lex_99_def
    mozjs_lex_100_def mozjs_lex_102_def mozjs_lex_105_def mozjs_lex_106_def mozjs_lex_107_def
    mozjs_lex_108_def mozjs_lex_109_def mozjs_lex_110_def mozjs_lex_111_def mozjs_lex_112_def
    mozjs_lex_113_def mozjs_lex_114_def mozjs_lex_116_def mozjs_lex_119_def mozjs_lex_120_def
    mozjs_lex_122_def mozjs_lex_123_def mozjs_lex_127_def mozjs_lex_128_def mozjs_lex_130_def
    mozjs_lex_131_def mozjs_lex_140_def mozjs_lex_141_def mozjs_lex_142_def mozjs_lex_143_def
    mozjs_lex_144_def mozjs_lex_145_def mozjs_lex_146_def mozjs_lex_147_def mozjs_lex_148_def
    mozjs_lex_149_def mozjs_lex_150_def mozjs_lex_151_def mozjs_lex_152_def mozjs_lex_153_def
    mozjs_lex_154_def mozjs_lex_155_def mozjs_lex_156_def mozjs_lex_157_def mozjs_lex_158_def
    mozjs_lex_159_def mozjs_lex_161_def mozjs_lex_162_def mozjs_lex_163_def mozjs_lex_164_def
    mozjs_lex_165_def mozjs_lex_169_def mozjs_lex_170_def mozjs_lex_172_def mozjs_lex_173_def
    mozjs_lex_186_def mozjs_lex_187_def mozjs_lex_188_def mozjs_lex_189_def mozjs_lex_190_def
    mozjs_lex_191_def mozjs_lex_192_def mozjs_lex_193_def mozjs_lex_194_def mozjs_lex_195_def
    mozjs_lex_196_def mozjs_lex_197_def mozjs_lex_198_def mozjs_lex_199_def mozjs_lex_200_def
    mozjs_lex_201_def mozjs_lex_202_def mozjs_lex_203_def mozjs_lex_204_def mozjs_lex_205_def
    mozjs_lex_206_def mozjs_lex_207_def mozjs_lex_208_def mozjs_lex_209_def mozjs_lex_210_def
    mozjs_lex_211_def mozjs_lex_212_def mozjs_lex_213_def mozjs_lex_214_def mozjs_lex_215_def
    mozjs_lex_216_def mozjs_lex_217_def mozjs_lex_218_def mozjs_lex_219_def mozjs_lex_220_def
    mozjs_lex_221_def mozjs_lex_222_def mozjs_lex_223_def mozjs_lex_224_def mozjs_lex_225_def
    mozjs_lex_226_def mozjs_lex_227_def mozjs_lex_228_def mozjs_lex_229_def mozjs_lex_230_def
    mozjs_lex_231_def mozjs_lex_232_def mozjs_lex_233_def mozjs_lex_234_def mozjs_lex_235_def
    mozjs_lex_236_def mozjs_lex_237_def mozjs_lex_238_def mozjs_lex_239_def mozjs_lex_240_def
    mozjs_lex_241_def mozjs_lex_242_def mozjs_lex_260_def mozjs_lex_263_def mozjs_lex_264_def
    mozjs_lex_270_def mozjs_lex_271_def mozjs_lex_272_def mozjs_lex_273_def mozjs_lex_274_def
    mozjs_lex_275_def mozjs_lex_276_def mozjs_lex_277_def mozjs_lex_278_def mozjs_lex_279_def
    mozjs_lex_281_def mozjs_lex_282_def mozjs_lex_283_def mozjs_lex_284_def mozjs_lex_285_def
    mozjs_lex_287_def mozjs_lex_288_def mozjs_lex_289_def mozjs_lex_290_def mozjs_lex_291_def
    mozjs_lex_292_def mozjs_lex_293_def

lemma mozjs_other_nth: "list_all (\<lambda>(s, f). mozjs_lex_cases ! s = f) mozjs_other_cases"
  unfolding mozjs_tables list.pred_inject prod.case by (intro conjI TrueI; simp add: mozjs_lex_list)

lemma mozjs_comment_nth: "list_all (\<lambda>(s, f). mozjs_lex_cases ! s = f) mozjs_comment_cases"
  unfolding mozjs_tables list.pred_inject prod.case by (intro conjI TrueI; simp add: mozjs_lex_list)

lemma mozjs_identifier_nth: "list_all (\<lambda>(s, f). mozjs_lex_cases ! s = f) mozjs_identifier_cases"
  unfolding mozjs_tables list.pred_inject prod.case by (intro conjI TrueI; simp add: mozjs_lex_list)

lemma mozjs_number_nth: "list_all (\<lambda>(s, f). mozjs_lex_cases ! s = f) mozjs_number_cases"
  unfolding mozjs_tables list.pred_inject prod.case by (intro conjI TrueI; simp add: mozjs_lex_list)

lemma mozjs_other_avoids:
  "avoids mozjs_lex_cases (map fst mozjs_other_cases) mozjs_sym_number"
  "avoids mozjs_lex_cases (map fst mozjs_other_cases) mozjs_sym_comment"
  "avoids mozjs_lex_cases (map fst mozjs_other_cases) mozjs_sym_identifier"
  by (rule avoids_table [OF mozjs_other_nth];
      unfold mozjs_tables list.pred_inject list.map prod.case fst_conv mozjs_table_cases snd_conv;
      intro conjI allI TrueI goto_within_intros; simp)+

lemma mozjs_comment_avoids:
  "avoids mozjs_lex_cases (map fst mozjs_comment_cases) mozjs_sym_number"
  "avoids mozjs_lex_cases (map fst mozjs_comment_cases) mozjs_sym_identifier"
  by (rule avoids_table [OF mozjs_comment_nth];
      unfold mozjs_tables list.pred_inject list.map prod.case fst_conv mozjs_table_cases snd_conv;
      intro conjI allI TrueI goto_within_intros; simp)+

lemma mozjs_identifier_avoids:
  "avoids mozjs_lex_cases (map fst mozjs_identifier_cases) mozjs_sym_number"
  "avoids mozjs_lex_cases (map fst mozjs_identifier_cases) mozjs_sym_comment"
  by (rule avoids_table [OF mozjs_identifier_nth];
      unfold mozjs_tables list.pred_inject list.map prod.case fst_conv mozjs_table_cases snd_conv;
      intro conjI allI TrueI goto_within_intros; simp)+

lemma mozjs_number_avoids:
  "avoids mozjs_lex_cases (map fst mozjs_number_cases) mozjs_sym_comment"
  "avoids mozjs_lex_cases (map fst mozjs_number_cases) mozjs_sym_identifier"
  by (rule avoids_table [OF mozjs_number_nth];
      unfold mozjs_tables list.pred_inject list.map prod.case fst_conv mozjs_table_cases snd_conv;
      intro conjI allI TrueI goto_within_intros; simp)+

lemma mozjs_tables_fst:
  "map fst mozjs_other_cases = mozjs_other_states"
  "map fst mozjs_comment_cases = [33, 35, 36, 191, 224, 225, 260, 263]"
  "map fst mozjs_identifier_cases =
     [11, 90, 91, 92, 94, 99, 102, 114, 122, 127, 130, 281, 282, 283, 284, 285, 287, 288, 292]"
  "map fst mozjs_number_cases =
     [39, 43, 106, 108, 109, 110, 111, 112, 113, 116, 169, 203, 270, 271, 272, 273, 274, 275, 276, 277, 278, 279]"
  by (simp_all add: mozjs_tables mozjs_other_states_def)

lemmas mozjs_avoids = mozjs_other_avoids mozjs_comment_avoids mozjs_identifier_avoids mozjs_number_avoids

lemma mozjs_dead:
  assumes "avoids mozjs_lex_cases S y" "list_all (\<lambda>s. s < 294) S"
  shows "\<forall>t\<in>set S. \<forall>w. \<not> token_word mozjs_ts_lex t y w"
  using mozjs_switch.avoids_token_word [OF assms(2,1)] by blast

lemma mozjs_other_bound: "list_all (\<lambda>s. s < 294) mozjs_other_states"
  by (simp add: mozjs_other_states_def)

lemmas mozjs_dead_states = mozjs_avoids [unfolded mozjs_tables_fst, THEN mozjs_dead]

section \<open>Behind blanks\<close>

definition js_blanks :: regex where
  "js_blanks = Star (Class mozjs_in_extras)"

definition behind_first :: "TSSymbol \<Rightarrow> TSStateId option \<Rightarrow> codepoint list \<Rightarrow> bool" where
  "behind_first y next w \<longleftrightarrow> (case next of None \<Rightarrow> False | Some t \<Rightarrow> token_word mozjs_ts_lex t y w)"

lemma code_state_bound: "s \<in> set mozjs_code_states \<Longrightarrow> s < 294"
  by (auto simp: mozjs_code_states_def)

lemma code_state_accepts: "s \<in> set mozjs_code_states \<Longrightarrow> state_accepts mozjs_ts_lex s = None"
proof -
  assume s: "s \<in> set mozjs_code_states"
  have "list_all (\<lambda>(s, f). fst (f False 0) = None) code_cases"
    unfolding code_cases_def list.pred_inject prod.case by (simp add: code_cases_defs)
  then show "state_accepts mozjs_ts_lex s = None"
    using code_case [OF s] code_state_bound [OF s] by (auto simp: mozjs_switch.state_accepts_eq list_all_iff)
qed

text \<open>A token is blanks and a word of \<open>r\<close> when \<open>r\<close> agrees with the states behind its first character.\<close>

lemma code_token:
  assumes s: "s \<in> set mozjs_code_states"
    and nonempty: "\<not> matches r []"
    and blank: "\<And>c w. mozjs_in_extras c \<Longrightarrow> \<not> matches r (c # w)"
    and first: "\<And>c w. js_char c \<Longrightarrow> js_text w \<Longrightarrow> \<not> mozjs_in_extras c \<Longrightarrow>
      behind_first y (lex_next mozjs_ts_lex s c) w \<longleftrightarrow> matches r (c # w)"
  shows "js_text w \<Longrightarrow> token_word mozjs_ts_lex s y w \<longleftrightarrow> matches (Seq js_blanks r) w"
proof (induction w)
  case Nil
  then show ?case
    using nonempty by (simp add: token_word_Nil code_state_accepts [OF s] matches_Seq)
next
  case (Cons c w)
  have next_s: "lex_next mozjs_ts_lex s c = goto_target (snd ((mozjs_lex_cases ! s) False c))"
    by (simp add: mozjs_switch.next_eq code_state_bound [OF s])
  show ?case
  proof (cases "mozjs_in_extras c")
    case True
    then have "lex_next mozjs_ts_lex s c = Some s"
      using first_char [OF s, of c] Cons.prems by (simp add: next_s first_char_ok_def)
    then show ?thesis
      using Cons True blank [of c w] by (simp add: token_word_Cons js_blanks_def matches_Star_Class_Cons)
  next
    case False
    then show ?thesis
      using first [of c w] Cons.prems
      by (simp add: token_word_Cons behind_first_def js_blanks_def matches_Star_Class_Cons)
  qed
qed

lemma code_next:
  assumes "s \<in> set mozjs_code_states" "js_char c" "\<not> mozjs_in_extras c"
  shows "if c = CH_0 then lex_next mozjs_ts_lex s c = Some 271
     else if js_digit c then lex_next mozjs_ts_lex s c = Some 272
     else if c = CH_DOT then lex_next mozjs_ts_lex s c \<in> {Some 39, Some 169}
     else if c = CH_SLASH then lex_next mozjs_ts_lex s c \<in> {Some 33, Some 224, Some 225}
     else if c = CH_BACKSLASH then lex_next mozjs_ts_lex s c = Some 94
     else if js_identifier_start c then lex_next mozjs_ts_lex s c \<in> {Some 284, Some 288}
     else case lex_next mozjs_ts_lex s c of None \<Rightarrow> True | Some t \<Rightarrow> t \<in> set mozjs_other_states"
  using first_char [OF assms(1,2)] assms(3)
  by (simp only: first_char_ok_def mozjs_switch.next_eq code_state_bound [OF assms(1)] Let_def if_False
      insert_iff empty_iff simp_thms)

lemma code_next_cases:
  assumes "s \<in> set mozjs_code_states" "js_char c" "\<not> mozjs_in_extras c"
  obtains (zero) "c = CH_0" "lex_next mozjs_ts_lex s c = Some 271"
  | (digit) "js_digit c" "c \<noteq> CH_0" "lex_next mozjs_ts_lex s c = Some 272"
  | (dot) t where "c = CH_DOT" "t \<in> {39, 169}" "lex_next mozjs_ts_lex s c = Some t"
  | (slash) t where "c = CH_SLASH" "t \<in> set js_slash_states" "lex_next mozjs_ts_lex s c = Some t"
  | (escape) "c = CH_BACKSLASH" "lex_next mozjs_ts_lex s c = Some 94"
  | (start) t where "js_identifier_start c" "\<not> js_digit c" "c \<noteq> CH_DOT" "c \<noteq> CH_SLASH" "c \<noteq> CH_BACKSLASH"
      "t \<in> {284, 288}" "lex_next mozjs_ts_lex s c = Some t"
  | (other) "\<not> js_identifier_start c" "\<not> js_digit c" "c \<noteq> CH_DOT" "c \<noteq> CH_SLASH" "c \<noteq> CH_BACKSLASH"
      "\<And>t. lex_next mozjs_ts_lex s c = Some t \<Longrightarrow> t \<in> set mozjs_other_states"
proof -
  have "js_digit CH_0" by (simp add: js_digit_def)
  moreover have "set js_slash_states = {33, 224, 225}" by (simp add: js_slash_states_def)
  ultimately show ?thesis
    using code_next [OF assms] that by (fastforce split: if_splits option.splits)
qed

lemmas mozjs_never = mozjs_dead_states [rule_format]

lemma slash_states_never:
  "t \<in> set js_slash_states \<Longrightarrow> y \<in> {mozjs_sym_number, mozjs_sym_identifier} \<Longrightarrow> \<not> token_word mozjs_ts_lex t y w"
  using mozjs_never(4,5) [of t w] by (auto simp: js_slash_states_def)

lemma identifier_states_never:
  "t \<in> {94, 284, 288} \<Longrightarrow> y \<in> {mozjs_sym_number, mozjs_sym_comment} \<Longrightarrow> \<not> token_word mozjs_ts_lex t y w"
  using mozjs_never(6,7) [of t w] by auto

lemma number_states_never:
  "t \<in> {39, 169, 271, 272} \<Longrightarrow> y \<in> {mozjs_sym_comment, mozjs_sym_identifier} \<Longrightarrow> \<not> token_word mozjs_ts_lex t y w"
  using mozjs_never(8,9) [of t w] by auto

lemma other_states_never:
  "(\<And>t. next = Some t \<Longrightarrow> t \<in> set mozjs_other_states) \<Longrightarrow>
     y \<in> {mozjs_sym_number, mozjs_sym_comment, mozjs_sym_identifier} \<Longrightarrow> \<not> behind_first y next w"
  using mozjs_never(1-3) [OF mozjs_other_bound] by (cases "next") (auto simp: behind_first_def)

lemma behind_first_simps [simp]:
  "\<not> behind_first y None w"
  "behind_first y (Some t) w \<longleftrightarrow> token_word mozjs_ts_lex t y w"
  by (simp_all add: behind_first_def)

section \<open>Numbers\<close>

lemma js_dot_language:
  assumes "s \<in> {39, 169}"
  shows "js_number_word s w \<longleftrightarrow> matches (Seq (Class js_digit) (Seq (js_more_digits js_digit) (Opt js_exponent_part))) w"
proof (cases w)
  case Nil
  have "state_accepts mozjs_ts_lex s \<noteq> Some mozjs_sym_number"
    using assms by (auto simp: mozjs_auto mozjs_lex_defs)
  then show ?thesis by (simp add: Nil token_word_Nil matches_Nil)
next
  case (Cons c v)
  have "\<not> js_number_word 43 v"
  proof (cases v)
    case (Cons d u)
    have "\<not> js_number_word 203 u" by (cases u) (simp_all add: regex_step mozjs_auto mozjs_lex_defs)
    then show ?thesis by (simp add: Cons regex_step mozjs_auto mozjs_lex_defs)
  qed (simp add: regex_step mozjs_auto mozjs_lex_defs)
  moreover have "lex_next mozjs_ts_lex s c = (if js_digit c then Some 277 else if s = 39 \<and> c = CH_DOT then Some 43 else None)"
    using assms by (auto simp: mozjs_auto mozjs_lex_defs js_digit_def)
  ultimately show ?thesis
    using js_fraction_language [of v] by (simp add: Cons token_word_Cons matches_Class_Cons)
qed

lemma js_number_first:
  assumes "s \<in> set mozjs_code_states" "js_char c" "js_text w" "\<not> mozjs_in_extras c"
  shows "behind_first mozjs_sym_number (lex_next mozjs_ts_lex s c) w \<longleftrightarrow> matches js_number_regex (c # w)"
proof -
  have nonzero: "CH_1 \<le> c \<and> c \<le> CH_9 \<longleftrightarrow> js_digit c \<and> c \<noteq> CH_0" by (auto simp: js_digit_def)
  show ?thesis
  using assms(1,2,4)
  proof (cases rule: code_next_cases)
    case zero
    then show ?thesis by (simp add: js_number_Cons js_zero_language)
  next
    case digit
    then show ?thesis by (auto simp: js_number_Cons nonzero js_decimal_language js_digit_def)
  next
    case (dot t)
    then show ?thesis by (simp add: js_number_Cons js_dot_language)
  next
    case (slash t)
    then show ?thesis by (simp add: js_number_Cons slash_states_never)
  next
    case escape
    then show ?thesis by (simp add: js_number_Cons identifier_states_never)
  next
    case (start t)
    moreover have "c \<noteq> CH_0" "\<not> (CH_1 \<le> c \<and> c \<le> CH_9)" using start(2) by (auto simp: js_digit_def)
    ultimately show ?thesis
      using identifier_states_never [of t mozjs_sym_number w] by (auto simp: js_number_Cons)
  next
    case other
    moreover have "c \<noteq> CH_0" "\<not> (CH_1 \<le> c \<and> c \<le> CH_9)" using other(2) by (auto simp: js_digit_def)
    ultimately show ?thesis
      using other_states_never [of "lex_next mozjs_ts_lex s c"] by (auto simp: js_number_Cons)
  qed
qed

lemma js_number_blank: "mozjs_in_extras c \<Longrightarrow> \<not> matches js_number_regex (c # w)"
  by (auto simp: js_number_Cons mozjs_in_extras_iff)

lemma js_number_language:
  "s \<in> set mozjs_code_states \<Longrightarrow> js_text w \<Longrightarrow>
    token_word mozjs_ts_lex s mozjs_sym_number w \<longleftrightarrow> matches (Seq js_blanks js_number_regex) w"
  by (rule code_token [OF _ _ js_number_blank js_number_first])
    (simp_all add: matches_Nil js_number_regex_def js_radix_literal_def js_decimal_literal_def
      js_decimal_integer_def js_digits_def js_exponent_part_def Let_def)

section \<open>Comments\<close>

lemma js_comment_Cons:
  "matches js_comment_regex (c # d # w) \<longleftrightarrow> c = CH_SLASH \<and>
     (d = CH_SLASH \<and> matches js_line_comment_body w \<or>
      d = CH_STAR \<and> matches (Seq (Star (Class (\<lambda>c. c \<noteq> CH_STAR))) (Seq (Plus (Char CH_STAR)) block_comment_tail)) w)"
  by (auto simp: js_comment_regex_def block_comment_regex_def matches_Cons)

lemma js_comment_single: "\<not> matches js_comment_regex [c]"
  by (simp add: js_comment_regex_def block_comment_regex_def matches_Cons matches_Nil)

lemma js_slash_language:
  assumes "s \<in> set js_slash_states" "js_text w"
  shows "token_word mozjs_ts_lex s mozjs_sym_comment w \<longleftrightarrow> matches js_comment_regex (CH_SLASH # w)"
proof (cases w)
  case Nil
  have "state_accepts mozjs_ts_lex s \<noteq> Some mozjs_sym_comment"
    using assms(1) by (auto simp: js_slash_states_def mozjs_auto mozjs_lex_defs)
  then show ?thesis by (simp add: Nil token_word_Nil js_comment_single)
next
  case (Cons c v)
  have "\<not> token_word mozjs_ts_lex 191 mozjs_sym_comment v"
    by (cases v) (simp_all add: regex_step mozjs_auto mozjs_lex_defs)
  then have "c = CH_EQUALS \<Longrightarrow> \<not> token_word mozjs_ts_lex s mozjs_sym_comment w"
    using assms(1) unfolding js_slash_states_def Cons set_simps insert_iff empty_iff
    by (elim disjE; simp add: regex_step mozjs_auto mozjs_lex_defs)
  moreover have "c \<noteq> CH_EQUALS \<Longrightarrow> lex_next mozjs_ts_lex s c =
      (if c = CH_STAR then Some 36 else if c = CH_SLASH then Some 263 else None)"
    using js_slash_next assms(1) by (simp add: list_all_iff)
  ultimately show ?thesis
    using js_line_comment_language [of v] js_block.block_comment_language [of v] js_text_no_nul [of v] assms(2)
    by (cases "c = CH_EQUALS") (auto simp: Cons token_word_Cons js_comment_Cons)
qed

lemma js_comment_first:
  assumes "s \<in> set mozjs_code_states" "js_char c" "js_text w" "\<not> mozjs_in_extras c"
  shows "behind_first mozjs_sym_comment (lex_next mozjs_ts_lex s c) w \<longleftrightarrow> matches js_comment_regex (c # w)"
proof -
  have only: "matches js_comment_regex (c # w) \<Longrightarrow> c = CH_SLASH"
    by (cases w) (simp_all add: js_comment_Cons js_comment_single)
  show ?thesis
  using assms(1,2,4)
  proof (cases rule: code_next_cases)
    case (slash t)
    then show ?thesis by (simp add: js_slash_language [OF _ assms(3)])
  next
    case other
    then show ?thesis using only other_states_never [of "lex_next mozjs_ts_lex s c"] by auto
  qed (use only number_states_never identifier_states_never in \<open>auto simp: js_digit_def\<close>)
qed

lemma js_comment_blank: "mozjs_in_extras c \<Longrightarrow> \<not> matches js_comment_regex (c # w)"
  by (cases w) (auto simp: js_comment_Cons js_comment_single mozjs_in_extras_iff)

lemma js_comment_language:
  "s \<in> set mozjs_code_states \<Longrightarrow> js_text w \<Longrightarrow>
    token_word mozjs_ts_lex s mozjs_sym_comment w \<longleftrightarrow> matches (Seq js_blanks js_comment_regex) w"
  by (rule code_token [OF _ _ js_comment_blank js_comment_first])
    (simp_all add: matches_Nil js_comment_regex_def block_comment_regex_def)

section \<open>Identifiers\<close>

lemma js_identifier_start_iff:
  "js_char c \<Longrightarrow> js_identifier_start c \<longleftrightarrow> js_identifier_char c \<and> \<not> js_digit c"
  by (auto simp: js_identifier_start_def js_identifier_char_iff mozjs_starts_identifier_iff
      mozjs_in_identifier_iff js_digit_def)

lemma js_identifier_Cons:
  "matches js_identifier_regex (c # w) \<longleftrightarrow>
     (if c = CH_BACKSLASH then matches (Seq (Char CH_u) (Seq js_escape_rest js_identifier_tail)) w
      else js_identifier_char c \<and> \<not> js_digit c \<and> matches js_identifier_tail w)"
  using js_identifier_not_blank [of c]
  by (cases w) (auto simp: matches_Cons matches_Nil js_identifier_regex_def js_identifier_tail_def
      js_unicode_escape_def js_escape_rest_def)

lemma js_identifier_first:
  assumes "s \<in> set mozjs_code_states" "js_char c" "js_text w" "\<not> mozjs_in_extras c"
  shows "behind_first mozjs_sym_identifier (lex_next mozjs_ts_lex s c) w \<longleftrightarrow> matches js_identifier_regex (c # w)"
proof -
  have "\<not> js_identifier_char CH_DOT" "\<not> js_identifier_char CH_SLASH" "js_digit CH_0" "\<not> js_digit CH_BACKSLASH"
    by (simp_all add: js_identifier_char_def js_punctuation_def js_digit_def)
  note chars = this
  show ?thesis
  using assms(1,2,4)
  proof (cases rule: code_next_cases)
    case zero
    then show ?thesis using chars by (simp add: js_identifier_Cons number_states_never)
  next
    case digit
    then show ?thesis using chars by (auto simp: js_identifier_Cons number_states_never)
  next
    case (dot t)
    then show ?thesis using chars number_states_never [of t mozjs_sym_identifier w] by (auto simp: js_identifier_Cons)
  next
    case (slash t)
    then show ?thesis using chars by (simp add: js_identifier_Cons slash_states_never)
  next
    case escape
    then show ?thesis using js_identifier_tail_language [OF assms(3)] by (simp add: js_identifier_Cons)
  next
    case (start t)
    then show ?thesis using js_identifier_tail_language [OF assms(3)] js_identifier_start_iff [OF assms(2)]
      by (auto simp: js_identifier_Cons)
  next
    case other
    then show ?thesis using js_identifier_start_iff [OF assms(2)] other_states_never [of "lex_next mozjs_ts_lex s c"]
      by (auto simp: js_identifier_Cons)
  qed
qed

lemma js_identifier_blank: "mozjs_in_extras c \<Longrightarrow> \<not> matches js_identifier_regex (c # w)"
  by (auto simp: js_identifier_Cons mozjs_in_extras_iff js_identifier_char_def js_white_space_def js_punctuation_def)

lemma js_identifier_language:
  "s \<in> set mozjs_code_states \<Longrightarrow> js_text w \<Longrightarrow>
    token_word mozjs_ts_lex s mozjs_sym_identifier w \<longleftrightarrow> matches (Seq js_blanks js_identifier_regex) w"
  by (rule code_token [OF _ _ js_identifier_blank js_identifier_first])
    (simp_all add: matches_Nil js_identifier_regex_def js_unicode_escape_def)

section \<open>The three tokens\<close>

text \<open>
  Property C16. In every lex state the parser uses where JavaScript code stands, and for every text without NUL,
  the generated lexer accepts as an identifier, a number or a comment exactly blanks followed by a word of the
  grammar's expression for that token: identifiers with Unicode escapes, the numbers of all radixes with
  separators, exponents and big integers, and both kinds of comment.
\<close>

theorem mozjs_code_tokens:
  assumes "s \<in> set mozjs_code_states" and "js_text w"
  shows "(token_word mozjs_ts_lex s mozjs_sym_identifier w \<longleftrightarrow> matches (Seq js_blanks js_identifier_regex) w) \<and>
    (token_word mozjs_ts_lex s mozjs_sym_number w \<longleftrightarrow> matches (Seq js_blanks js_number_regex) w) \<and>
    (token_word mozjs_ts_lex s mozjs_sym_comment w \<longleftrightarrow> matches (Seq js_blanks js_comment_regex) w)"
  using js_identifier_language [OF assms] js_number_language [OF assms] js_comment_language [OF assms] by (intro conjI)

theorem mozjs_code_tokens_witness:
  "token_word mozjs_ts_lex 13 mozjs_sym_number [CH_SPACE, CH_0, CH_x, CH_F, CH_n]"
proof -
  have "matches (Seq js_blanks js_number_regex) [CH_SPACE, CH_0, CH_x, CH_F, CH_n]"
    by (simp add: js_blanks_def regex_step mozjs_in_extras_iff js_number_regex_def js_radix_literal_def
        js_decimal_literal_def js_decimal_integer_def js_digits_def js_more_digits_def js_exponent_part_def
        js_signed_integer_def js_hex_def js_digit_def js_binary_def js_octal_def Let_def)
  then show ?thesis
    using mozjs_code_tokens [of 13 "[CH_SPACE, CH_0, CH_x, CH_F, CH_n]"]
    by (simp add: mozjs_code_states_def js_char_def)
qed

end
