(* ===== verification/Mozcpp_Lex.thy ===== *)
theory Mozcpp_Lex
  imports Token_Regex
begin

text \<open>
  The generated lexer of the C++ grammar: \<^verbatim>\<open>ts_lex\<close> of
  \<^verbatim>\<open>tree-sitter-mozcpp/src/parser.c\<close>, one definition per \<^verbatim>\<open>case\<close>,
  the character sets it asks for, and the symbols of \<^verbatim>\<open>enum ts_symbol_identifiers\<close>.
\<close>

section \<open>Symbols\<close>

abbreviation (input) mozcpp_sym_identifier :: TSSymbol where "mozcpp_sym_identifier \<equiv> 1"
abbreviation (input) mozcpp_aux_sym_preproc_include_token1 :: TSSymbol where "mozcpp_aux_sym_preproc_include_token1 \<equiv> 2"
abbreviation (input) mozcpp_aux_sym_preproc_include_token2 :: TSSymbol where "mozcpp_aux_sym_preproc_include_token2 \<equiv> 3"
abbreviation (input) mozcpp_aux_sym_preproc_def_token1 :: TSSymbol where "mozcpp_aux_sym_preproc_def_token1 \<equiv> 4"
abbreviation (input) mozcpp_anon_sym_LPAREN :: TSSymbol where "mozcpp_anon_sym_LPAREN \<equiv> 5"
abbreviation (input) mozcpp_anon_sym_DOT_DOT_DOT :: TSSymbol where "mozcpp_anon_sym_DOT_DOT_DOT \<equiv> 6"
abbreviation (input) mozcpp_anon_sym_COMMA :: TSSymbol where "mozcpp_anon_sym_COMMA \<equiv> 7"
abbreviation (input) mozcpp_anon_sym_RPAREN :: TSSymbol where "mozcpp_anon_sym_RPAREN \<equiv> 8"
abbreviation (input) mozcpp_aux_sym_preproc_if_token1 :: TSSymbol where "mozcpp_aux_sym_preproc_if_token1 \<equiv> 9"
abbreviation (input) mozcpp_anon_sym_LF :: TSSymbol where "mozcpp_anon_sym_LF \<equiv> 10"
abbreviation (input) mozcpp_aux_sym_preproc_if_token2 :: TSSymbol where "mozcpp_aux_sym_preproc_if_token2 \<equiv> 11"
abbreviation (input) mozcpp_aux_sym_preproc_ifdef_token1 :: TSSymbol where "mozcpp_aux_sym_preproc_ifdef_token1 \<equiv> 12"
abbreviation (input) mozcpp_aux_sym_preproc_ifdef_token2 :: TSSymbol where "mozcpp_aux_sym_preproc_ifdef_token2 \<equiv> 13"
abbreviation (input) mozcpp_aux_sym_preproc_else_token1 :: TSSymbol where "mozcpp_aux_sym_preproc_else_token1 \<equiv> 14"
abbreviation (input) mozcpp_aux_sym_preproc_elif_token1 :: TSSymbol where "mozcpp_aux_sym_preproc_elif_token1 \<equiv> 15"
abbreviation (input) mozcpp_aux_sym_preproc_elifdef_token1 :: TSSymbol where "mozcpp_aux_sym_preproc_elifdef_token1 \<equiv> 16"
abbreviation (input) mozcpp_aux_sym_preproc_elifdef_token2 :: TSSymbol where "mozcpp_aux_sym_preproc_elifdef_token2 \<equiv> 17"
abbreviation (input) mozcpp_sym_preproc_arg :: TSSymbol where "mozcpp_sym_preproc_arg \<equiv> 18"
abbreviation (input) mozcpp_sym_preproc_directive :: TSSymbol where "mozcpp_sym_preproc_directive \<equiv> 19"
abbreviation (input) mozcpp_anon_sym_LPAREN2 :: TSSymbol where "mozcpp_anon_sym_LPAREN2 \<equiv> 20"
abbreviation (input) mozcpp_anon_sym_defined :: TSSymbol where "mozcpp_anon_sym_defined \<equiv> 21"
abbreviation (input) mozcpp_anon_sym_BANG :: TSSymbol where "mozcpp_anon_sym_BANG \<equiv> 22"
abbreviation (input) mozcpp_anon_sym_TILDE :: TSSymbol where "mozcpp_anon_sym_TILDE \<equiv> 23"
abbreviation (input) mozcpp_anon_sym_DASH :: TSSymbol where "mozcpp_anon_sym_DASH \<equiv> 24"
abbreviation (input) mozcpp_anon_sym_PLUS :: TSSymbol where "mozcpp_anon_sym_PLUS \<equiv> 25"
abbreviation (input) mozcpp_anon_sym_STAR :: TSSymbol where "mozcpp_anon_sym_STAR \<equiv> 26"
abbreviation (input) mozcpp_anon_sym_SLASH :: TSSymbol where "mozcpp_anon_sym_SLASH \<equiv> 27"
abbreviation (input) mozcpp_anon_sym_PERCENT :: TSSymbol where "mozcpp_anon_sym_PERCENT \<equiv> 28"
abbreviation (input) mozcpp_anon_sym_PIPE_PIPE :: TSSymbol where "mozcpp_anon_sym_PIPE_PIPE \<equiv> 29"
abbreviation (input) mozcpp_anon_sym_AMP_AMP :: TSSymbol where "mozcpp_anon_sym_AMP_AMP \<equiv> 30"
abbreviation (input) mozcpp_anon_sym_PIPE :: TSSymbol where "mozcpp_anon_sym_PIPE \<equiv> 31"
abbreviation (input) mozcpp_anon_sym_CARET :: TSSymbol where "mozcpp_anon_sym_CARET \<equiv> 32"
abbreviation (input) mozcpp_anon_sym_AMP :: TSSymbol where "mozcpp_anon_sym_AMP \<equiv> 33"
abbreviation (input) mozcpp_anon_sym_EQ_EQ :: TSSymbol where "mozcpp_anon_sym_EQ_EQ \<equiv> 34"
abbreviation (input) mozcpp_anon_sym_BANG_EQ :: TSSymbol where "mozcpp_anon_sym_BANG_EQ \<equiv> 35"
abbreviation (input) mozcpp_anon_sym_GT :: TSSymbol where "mozcpp_anon_sym_GT \<equiv> 36"
abbreviation (input) mozcpp_anon_sym_GT_EQ :: TSSymbol where "mozcpp_anon_sym_GT_EQ \<equiv> 37"
abbreviation (input) mozcpp_anon_sym_LT_EQ :: TSSymbol where "mozcpp_anon_sym_LT_EQ \<equiv> 38"
abbreviation (input) mozcpp_anon_sym_LT :: TSSymbol where "mozcpp_anon_sym_LT \<equiv> 39"
abbreviation (input) mozcpp_anon_sym_LT_LT :: TSSymbol where "mozcpp_anon_sym_LT_LT \<equiv> 40"
abbreviation (input) mozcpp_anon_sym_GT_GT :: TSSymbol where "mozcpp_anon_sym_GT_GT \<equiv> 41"
abbreviation (input) mozcpp_anon_sym_SEMI :: TSSymbol where "mozcpp_anon_sym_SEMI \<equiv> 42"
abbreviation (input) mozcpp_anon_sym___extension__u :: TSSymbol where "mozcpp_anon_sym___extension__u \<equiv> 43"
abbreviation (input) mozcpp_anon_sym_typedef :: TSSymbol where "mozcpp_anon_sym_typedef \<equiv> 44"
abbreviation (input) mozcpp_anon_sym_virtual :: TSSymbol where "mozcpp_anon_sym_virtual \<equiv> 45"
abbreviation (input) mozcpp_anon_sym_extern :: TSSymbol where "mozcpp_anon_sym_extern \<equiv> 46"
abbreviation (input) mozcpp_anon_sym___attribute__u :: TSSymbol where "mozcpp_anon_sym___attribute__u \<equiv> 47"
abbreviation (input) mozcpp_anon_sym___attribute :: TSSymbol where "mozcpp_anon_sym___attribute \<equiv> 48"
abbreviation (input) mozcpp_anon_sym_COLON_COLON :: TSSymbol where "mozcpp_anon_sym_COLON_COLON \<equiv> 49"
abbreviation (input) mozcpp_anon_sym_LBRACK_LBRACK :: TSSymbol where "mozcpp_anon_sym_LBRACK_LBRACK \<equiv> 50"
abbreviation (input) mozcpp_anon_sym_RBRACK_RBRACK :: TSSymbol where "mozcpp_anon_sym_RBRACK_RBRACK \<equiv> 51"
abbreviation (input) mozcpp_anon_sym___declspec :: TSSymbol where "mozcpp_anon_sym___declspec \<equiv> 52"
abbreviation (input) mozcpp_anon_sym___based :: TSSymbol where "mozcpp_anon_sym___based \<equiv> 53"
abbreviation (input) mozcpp_anon_sym___cdecl :: TSSymbol where "mozcpp_anon_sym___cdecl \<equiv> 54"
abbreviation (input) mozcpp_anon_sym___clrcall :: TSSymbol where "mozcpp_anon_sym___clrcall \<equiv> 55"
abbreviation (input) mozcpp_anon_sym___stdcall :: TSSymbol where "mozcpp_anon_sym___stdcall \<equiv> 56"
abbreviation (input) mozcpp_anon_sym___fastcall :: TSSymbol where "mozcpp_anon_sym___fastcall \<equiv> 57"
abbreviation (input) mozcpp_anon_sym___thiscall :: TSSymbol where "mozcpp_anon_sym___thiscall \<equiv> 58"
abbreviation (input) mozcpp_anon_sym___vectorcall :: TSSymbol where "mozcpp_anon_sym___vectorcall \<equiv> 59"
abbreviation (input) mozcpp_sym_ms_restrict_modifier :: TSSymbol where "mozcpp_sym_ms_restrict_modifier \<equiv> 60"
abbreviation (input) mozcpp_sym_ms_unsigned_ptr_modifier :: TSSymbol where "mozcpp_sym_ms_unsigned_ptr_modifier \<equiv> 61"
abbreviation (input) mozcpp_sym_ms_signed_ptr_modifier :: TSSymbol where "mozcpp_sym_ms_signed_ptr_modifier \<equiv> 62"
abbreviation (input) mozcpp_anon_sym__unaligned :: TSSymbol where "mozcpp_anon_sym__unaligned \<equiv> 63"
abbreviation (input) mozcpp_anon_sym___unaligned :: TSSymbol where "mozcpp_anon_sym___unaligned \<equiv> 64"
abbreviation (input) mozcpp_anon_sym_LBRACE :: TSSymbol where "mozcpp_anon_sym_LBRACE \<equiv> 65"
abbreviation (input) mozcpp_anon_sym_RBRACE :: TSSymbol where "mozcpp_anon_sym_RBRACE \<equiv> 66"
abbreviation (input) mozcpp_anon_sym_signed :: TSSymbol where "mozcpp_anon_sym_signed \<equiv> 67"
abbreviation (input) mozcpp_anon_sym_unsigned :: TSSymbol where "mozcpp_anon_sym_unsigned \<equiv> 68"
abbreviation (input) mozcpp_anon_sym_long :: TSSymbol where "mozcpp_anon_sym_long \<equiv> 69"
abbreviation (input) mozcpp_anon_sym_short :: TSSymbol where "mozcpp_anon_sym_short \<equiv> 70"
abbreviation (input) mozcpp_anon_sym_LBRACK :: TSSymbol where "mozcpp_anon_sym_LBRACK \<equiv> 71"
abbreviation (input) mozcpp_anon_sym_static :: TSSymbol where "mozcpp_anon_sym_static \<equiv> 72"
abbreviation (input) mozcpp_anon_sym_RBRACK :: TSSymbol where "mozcpp_anon_sym_RBRACK \<equiv> 73"
abbreviation (input) mozcpp_anon_sym_EQ :: TSSymbol where "mozcpp_anon_sym_EQ \<equiv> 74"
abbreviation (input) mozcpp_anon_sym_register :: TSSymbol where "mozcpp_anon_sym_register \<equiv> 75"
abbreviation (input) mozcpp_anon_sym_inline :: TSSymbol where "mozcpp_anon_sym_inline \<equiv> 76"
abbreviation (input) mozcpp_anon_sym___inline :: TSSymbol where "mozcpp_anon_sym___inline \<equiv> 77"
abbreviation (input) mozcpp_anon_sym___inline__u :: TSSymbol where "mozcpp_anon_sym___inline__u \<equiv> 78"
abbreviation (input) mozcpp_anon_sym___forceinline :: TSSymbol where "mozcpp_anon_sym___forceinline \<equiv> 79"
abbreviation (input) mozcpp_anon_sym_thread_local :: TSSymbol where "mozcpp_anon_sym_thread_local \<equiv> 80"
abbreviation (input) mozcpp_anon_sym___thread :: TSSymbol where "mozcpp_anon_sym___thread \<equiv> 81"
abbreviation (input) mozcpp_anon_sym_const :: TSSymbol where "mozcpp_anon_sym_const \<equiv> 82"
abbreviation (input) mozcpp_anon_sym_constexpr :: TSSymbol where "mozcpp_anon_sym_constexpr \<equiv> 83"
abbreviation (input) mozcpp_anon_sym_volatile :: TSSymbol where "mozcpp_anon_sym_volatile \<equiv> 84"
abbreviation (input) mozcpp_anon_sym_restrict :: TSSymbol where "mozcpp_anon_sym_restrict \<equiv> 85"
abbreviation (input) mozcpp_anon_sym___restrict__u :: TSSymbol where "mozcpp_anon_sym___restrict__u \<equiv> 86"
abbreviation (input) mozcpp_anon_sym__Atomic :: TSSymbol where "mozcpp_anon_sym__Atomic \<equiv> 87"
abbreviation (input) mozcpp_anon_sym__Noreturn :: TSSymbol where "mozcpp_anon_sym__Noreturn \<equiv> 88"
abbreviation (input) mozcpp_anon_sym_noreturn :: TSSymbol where "mozcpp_anon_sym_noreturn \<equiv> 89"
abbreviation (input) mozcpp_anon_sym__Nonnull :: TSSymbol where "mozcpp_anon_sym__Nonnull \<equiv> 90"
abbreviation (input) mozcpp_anon_sym_mutable :: TSSymbol where "mozcpp_anon_sym_mutable \<equiv> 91"
abbreviation (input) mozcpp_anon_sym_constinit :: TSSymbol where "mozcpp_anon_sym_constinit \<equiv> 92"
abbreviation (input) mozcpp_anon_sym_consteval :: TSSymbol where "mozcpp_anon_sym_consteval \<equiv> 93"
abbreviation (input) mozcpp_anon_sym_alignas :: TSSymbol where "mozcpp_anon_sym_alignas \<equiv> 94"
abbreviation (input) mozcpp_anon_sym__Alignas :: TSSymbol where "mozcpp_anon_sym__Alignas \<equiv> 95"
abbreviation (input) mozcpp_sym_primitive_type :: TSSymbol where "mozcpp_sym_primitive_type \<equiv> 96"
abbreviation (input) mozcpp_anon_sym_enum :: TSSymbol where "mozcpp_anon_sym_enum \<equiv> 97"
abbreviation (input) mozcpp_anon_sym_class :: TSSymbol where "mozcpp_anon_sym_class \<equiv> 98"
abbreviation (input) mozcpp_anon_sym_struct :: TSSymbol where "mozcpp_anon_sym_struct \<equiv> 99"
abbreviation (input) mozcpp_anon_sym_union :: TSSymbol where "mozcpp_anon_sym_union \<equiv> 100"
abbreviation (input) mozcpp_anon_sym_COLON :: TSSymbol where "mozcpp_anon_sym_COLON \<equiv> 101"
abbreviation (input) mozcpp_anon_sym_if :: TSSymbol where "mozcpp_anon_sym_if \<equiv> 102"
abbreviation (input) mozcpp_anon_sym_else :: TSSymbol where "mozcpp_anon_sym_else \<equiv> 103"
abbreviation (input) mozcpp_anon_sym_switch :: TSSymbol where "mozcpp_anon_sym_switch \<equiv> 104"
abbreviation (input) mozcpp_anon_sym_case :: TSSymbol where "mozcpp_anon_sym_case \<equiv> 105"
abbreviation (input) mozcpp_anon_sym_default :: TSSymbol where "mozcpp_anon_sym_default \<equiv> 106"
abbreviation (input) mozcpp_anon_sym_while :: TSSymbol where "mozcpp_anon_sym_while \<equiv> 107"
abbreviation (input) mozcpp_anon_sym_do :: TSSymbol where "mozcpp_anon_sym_do \<equiv> 108"
abbreviation (input) mozcpp_anon_sym_for :: TSSymbol where "mozcpp_anon_sym_for \<equiv> 109"
abbreviation (input) mozcpp_anon_sym_return :: TSSymbol where "mozcpp_anon_sym_return \<equiv> 110"
abbreviation (input) mozcpp_anon_sym_break :: TSSymbol where "mozcpp_anon_sym_break \<equiv> 111"
abbreviation (input) mozcpp_anon_sym_continue :: TSSymbol where "mozcpp_anon_sym_continue \<equiv> 112"
abbreviation (input) mozcpp_anon_sym_goto :: TSSymbol where "mozcpp_anon_sym_goto \<equiv> 113"
abbreviation (input) mozcpp_anon_sym___try :: TSSymbol where "mozcpp_anon_sym___try \<equiv> 114"
abbreviation (input) mozcpp_anon_sym___except :: TSSymbol where "mozcpp_anon_sym___except \<equiv> 115"
abbreviation (input) mozcpp_anon_sym___finally :: TSSymbol where "mozcpp_anon_sym___finally \<equiv> 116"
abbreviation (input) mozcpp_anon_sym___leave :: TSSymbol where "mozcpp_anon_sym___leave \<equiv> 117"
abbreviation (input) mozcpp_anon_sym_QMARK :: TSSymbol where "mozcpp_anon_sym_QMARK \<equiv> 118"
abbreviation (input) mozcpp_anon_sym_STAR_EQ :: TSSymbol where "mozcpp_anon_sym_STAR_EQ \<equiv> 119"
abbreviation (input) mozcpp_anon_sym_SLASH_EQ :: TSSymbol where "mozcpp_anon_sym_SLASH_EQ \<equiv> 120"
abbreviation (input) mozcpp_anon_sym_PERCENT_EQ :: TSSymbol where "mozcpp_anon_sym_PERCENT_EQ \<equiv> 121"
abbreviation (input) mozcpp_anon_sym_PLUS_EQ :: TSSymbol where "mozcpp_anon_sym_PLUS_EQ \<equiv> 122"
abbreviation (input) mozcpp_anon_sym_DASH_EQ :: TSSymbol where "mozcpp_anon_sym_DASH_EQ \<equiv> 123"
abbreviation (input) mozcpp_anon_sym_LT_LT_EQ :: TSSymbol where "mozcpp_anon_sym_LT_LT_EQ \<equiv> 124"
abbreviation (input) mozcpp_anon_sym_GT_GT_EQ :: TSSymbol where "mozcpp_anon_sym_GT_GT_EQ \<equiv> 125"
abbreviation (input) mozcpp_anon_sym_AMP_EQ :: TSSymbol where "mozcpp_anon_sym_AMP_EQ \<equiv> 126"
abbreviation (input) mozcpp_anon_sym_CARET_EQ :: TSSymbol where "mozcpp_anon_sym_CARET_EQ \<equiv> 127"
abbreviation (input) mozcpp_anon_sym_PIPE_EQ :: TSSymbol where "mozcpp_anon_sym_PIPE_EQ \<equiv> 128"
abbreviation (input) mozcpp_anon_sym_and_eq :: TSSymbol where "mozcpp_anon_sym_and_eq \<equiv> 129"
abbreviation (input) mozcpp_anon_sym_or_eq :: TSSymbol where "mozcpp_anon_sym_or_eq \<equiv> 130"
abbreviation (input) mozcpp_anon_sym_xor_eq :: TSSymbol where "mozcpp_anon_sym_xor_eq \<equiv> 131"
abbreviation (input) mozcpp_anon_sym_not :: TSSymbol where "mozcpp_anon_sym_not \<equiv> 132"
abbreviation (input) mozcpp_anon_sym_compl :: TSSymbol where "mozcpp_anon_sym_compl \<equiv> 133"
abbreviation (input) mozcpp_anon_sym_LT_EQ_GT :: TSSymbol where "mozcpp_anon_sym_LT_EQ_GT \<equiv> 134"
abbreviation (input) mozcpp_anon_sym_or :: TSSymbol where "mozcpp_anon_sym_or \<equiv> 135"
abbreviation (input) mozcpp_anon_sym_and :: TSSymbol where "mozcpp_anon_sym_and \<equiv> 136"
abbreviation (input) mozcpp_anon_sym_bitor :: TSSymbol where "mozcpp_anon_sym_bitor \<equiv> 137"
abbreviation (input) mozcpp_anon_sym_xor :: TSSymbol where "mozcpp_anon_sym_xor \<equiv> 138"
abbreviation (input) mozcpp_anon_sym_bitand :: TSSymbol where "mozcpp_anon_sym_bitand \<equiv> 139"
abbreviation (input) mozcpp_anon_sym_not_eq :: TSSymbol where "mozcpp_anon_sym_not_eq \<equiv> 140"
abbreviation (input) mozcpp_anon_sym_DASH_DASH :: TSSymbol where "mozcpp_anon_sym_DASH_DASH \<equiv> 141"
abbreviation (input) mozcpp_anon_sym_PLUS_PLUS :: TSSymbol where "mozcpp_anon_sym_PLUS_PLUS \<equiv> 142"
abbreviation (input) mozcpp_anon_sym_sizeof :: TSSymbol where "mozcpp_anon_sym_sizeof \<equiv> 143"
abbreviation (input) mozcpp_anon_sym___alignof__u :: TSSymbol where "mozcpp_anon_sym___alignof__u \<equiv> 144"
abbreviation (input) mozcpp_anon_sym___alignof :: TSSymbol where "mozcpp_anon_sym___alignof \<equiv> 145"
abbreviation (input) mozcpp_anon_sym__alignof :: TSSymbol where "mozcpp_anon_sym__alignof \<equiv> 146"
abbreviation (input) mozcpp_anon_sym_alignof :: TSSymbol where "mozcpp_anon_sym_alignof \<equiv> 147"
abbreviation (input) mozcpp_anon_sym__Alignof :: TSSymbol where "mozcpp_anon_sym__Alignof \<equiv> 148"
abbreviation (input) mozcpp_anon_sym_offsetof :: TSSymbol where "mozcpp_anon_sym_offsetof \<equiv> 149"
abbreviation (input) mozcpp_anon_sym__Generic :: TSSymbol where "mozcpp_anon_sym__Generic \<equiv> 150"
abbreviation (input) mozcpp_anon_sym_asm :: TSSymbol where "mozcpp_anon_sym_asm \<equiv> 151"
abbreviation (input) mozcpp_anon_sym___asm__u :: TSSymbol where "mozcpp_anon_sym___asm__u \<equiv> 152"
abbreviation (input) mozcpp_anon_sym___asm :: TSSymbol where "mozcpp_anon_sym___asm \<equiv> 153"
abbreviation (input) mozcpp_anon_sym___volatile__u :: TSSymbol where "mozcpp_anon_sym___volatile__u \<equiv> 154"
abbreviation (input) mozcpp_anon_sym_DOT :: TSSymbol where "mozcpp_anon_sym_DOT \<equiv> 155"
abbreviation (input) mozcpp_anon_sym_DOT_STAR :: TSSymbol where "mozcpp_anon_sym_DOT_STAR \<equiv> 156"
abbreviation (input) mozcpp_anon_sym_DASH_GT :: TSSymbol where "mozcpp_anon_sym_DASH_GT \<equiv> 157"
abbreviation (input) mozcpp_sym_number_literal :: TSSymbol where "mozcpp_sym_number_literal \<equiv> 158"
abbreviation (input) mozcpp_anon_sym_L_SQUOTE :: TSSymbol where "mozcpp_anon_sym_L_SQUOTE \<equiv> 159"
abbreviation (input) mozcpp_anon_sym_u_SQUOTE :: TSSymbol where "mozcpp_anon_sym_u_SQUOTE \<equiv> 160"
abbreviation (input) mozcpp_anon_sym_U_SQUOTE :: TSSymbol where "mozcpp_anon_sym_U_SQUOTE \<equiv> 161"
abbreviation (input) mozcpp_anon_sym_u8_SQUOTE :: TSSymbol where "mozcpp_anon_sym_u8_SQUOTE \<equiv> 162"
abbreviation (input) mozcpp_anon_sym_SQUOTE :: TSSymbol where "mozcpp_anon_sym_SQUOTE \<equiv> 163"
abbreviation (input) mozcpp_aux_sym_char_literal_token1 :: TSSymbol where "mozcpp_aux_sym_char_literal_token1 \<equiv> 164"
abbreviation (input) mozcpp_anon_sym_L_DQUOTE :: TSSymbol where "mozcpp_anon_sym_L_DQUOTE \<equiv> 165"
abbreviation (input) mozcpp_anon_sym_u_DQUOTE :: TSSymbol where "mozcpp_anon_sym_u_DQUOTE \<equiv> 166"
abbreviation (input) mozcpp_anon_sym_U_DQUOTE :: TSSymbol where "mozcpp_anon_sym_U_DQUOTE \<equiv> 167"
abbreviation (input) mozcpp_anon_sym_u8_DQUOTE :: TSSymbol where "mozcpp_anon_sym_u8_DQUOTE \<equiv> 168"
abbreviation (input) mozcpp_anon_sym_DQUOTE :: TSSymbol where "mozcpp_anon_sym_DQUOTE \<equiv> 169"
abbreviation (input) mozcpp_aux_sym_string_literal_token1 :: TSSymbol where "mozcpp_aux_sym_string_literal_token1 \<equiv> 170"
abbreviation (input) mozcpp_sym_escape_sequence :: TSSymbol where "mozcpp_sym_escape_sequence \<equiv> 171"
abbreviation (input) mozcpp_sym_system_lib_string :: TSSymbol where "mozcpp_sym_system_lib_string \<equiv> 172"
abbreviation (input) mozcpp_sym_true :: TSSymbol where "mozcpp_sym_true \<equiv> 173"
abbreviation (input) mozcpp_sym_false :: TSSymbol where "mozcpp_sym_false \<equiv> 174"
abbreviation (input) mozcpp_anon_sym_NULL :: TSSymbol where "mozcpp_anon_sym_NULL \<equiv> 175"
abbreviation (input) mozcpp_anon_sym_nullptr :: TSSymbol where "mozcpp_anon_sym_nullptr \<equiv> 176"
abbreviation (input) mozcpp_sym_comment :: TSSymbol where "mozcpp_sym_comment \<equiv> 177"
abbreviation (input) mozcpp_sym_auto :: TSSymbol where "mozcpp_sym_auto \<equiv> 178"
abbreviation (input) mozcpp_anon_sym_decltype :: TSSymbol where "mozcpp_anon_sym_decltype \<equiv> 179"
abbreviation (input) mozcpp_anon_sym_final :: TSSymbol where "mozcpp_anon_sym_final \<equiv> 180"
abbreviation (input) mozcpp_anon_sym_override :: TSSymbol where "mozcpp_anon_sym_override \<equiv> 181"
abbreviation (input) mozcpp_anon_sym_explicit :: TSSymbol where "mozcpp_anon_sym_explicit \<equiv> 182"
abbreviation (input) mozcpp_anon_sym_typename :: TSSymbol where "mozcpp_anon_sym_typename \<equiv> 183"
abbreviation (input) mozcpp_anon_sym_template :: TSSymbol where "mozcpp_anon_sym_template \<equiv> 184"
abbreviation (input) mozcpp_anon_sym_GT2 :: TSSymbol where "mozcpp_anon_sym_GT2 \<equiv> 185"
abbreviation (input) mozcpp_anon_sym_operator :: TSSymbol where "mozcpp_anon_sym_operator \<equiv> 186"
abbreviation (input) mozcpp_anon_sym_try :: TSSymbol where "mozcpp_anon_sym_try \<equiv> 187"
abbreviation (input) mozcpp_anon_sym_delete :: TSSymbol where "mozcpp_anon_sym_delete \<equiv> 188"
abbreviation (input) mozcpp_aux_sym_pure_virtual_clause_token1 :: TSSymbol where "mozcpp_aux_sym_pure_virtual_clause_token1 \<equiv> 189"
abbreviation (input) mozcpp_anon_sym_friend :: TSSymbol where "mozcpp_anon_sym_friend \<equiv> 190"
abbreviation (input) mozcpp_anon_sym_public :: TSSymbol where "mozcpp_anon_sym_public \<equiv> 191"
abbreviation (input) mozcpp_anon_sym_private :: TSSymbol where "mozcpp_anon_sym_private \<equiv> 192"
abbreviation (input) mozcpp_anon_sym_protected :: TSSymbol where "mozcpp_anon_sym_protected \<equiv> 193"
abbreviation (input) mozcpp_anon_sym_noexcept :: TSSymbol where "mozcpp_anon_sym_noexcept \<equiv> 194"
abbreviation (input) mozcpp_anon_sym_throw :: TSSymbol where "mozcpp_anon_sym_throw \<equiv> 195"
abbreviation (input) mozcpp_anon_sym_namespace :: TSSymbol where "mozcpp_anon_sym_namespace \<equiv> 196"
abbreviation (input) mozcpp_anon_sym_using :: TSSymbol where "mozcpp_anon_sym_using \<equiv> 197"
abbreviation (input) mozcpp_anon_sym_static_assert :: TSSymbol where "mozcpp_anon_sym_static_assert \<equiv> 198"
abbreviation (input) mozcpp_anon_sym_concept :: TSSymbol where "mozcpp_anon_sym_concept \<equiv> 199"
abbreviation (input) mozcpp_anon_sym_co_return :: TSSymbol where "mozcpp_anon_sym_co_return \<equiv> 200"
abbreviation (input) mozcpp_anon_sym_co_yield :: TSSymbol where "mozcpp_anon_sym_co_yield \<equiv> 201"
abbreviation (input) mozcpp_anon_sym_catch :: TSSymbol where "mozcpp_anon_sym_catch \<equiv> 202"
abbreviation (input) mozcpp_anon_sym_R_DQUOTE :: TSSymbol where "mozcpp_anon_sym_R_DQUOTE \<equiv> 203"
abbreviation (input) mozcpp_anon_sym_LR_DQUOTE :: TSSymbol where "mozcpp_anon_sym_LR_DQUOTE \<equiv> 204"
abbreviation (input) mozcpp_anon_sym_uR_DQUOTE :: TSSymbol where "mozcpp_anon_sym_uR_DQUOTE \<equiv> 205"
abbreviation (input) mozcpp_anon_sym_UR_DQUOTE :: TSSymbol where "mozcpp_anon_sym_UR_DQUOTE \<equiv> 206"
abbreviation (input) mozcpp_anon_sym_u8R_DQUOTE :: TSSymbol where "mozcpp_anon_sym_u8R_DQUOTE \<equiv> 207"
abbreviation (input) mozcpp_anon_sym_co_await :: TSSymbol where "mozcpp_anon_sym_co_await \<equiv> 208"
abbreviation (input) mozcpp_anon_sym_new :: TSSymbol where "mozcpp_anon_sym_new \<equiv> 209"
abbreviation (input) mozcpp_anon_sym_requires :: TSSymbol where "mozcpp_anon_sym_requires \<equiv> 210"
abbreviation (input) mozcpp_anon_sym_DASH_GT_STAR :: TSSymbol where "mozcpp_anon_sym_DASH_GT_STAR \<equiv> 211"
abbreviation (input) mozcpp_anon_sym_LPAREN_RPAREN :: TSSymbol where "mozcpp_anon_sym_LPAREN_RPAREN \<equiv> 212"
abbreviation (input) mozcpp_anon_sym_LBRACK_RBRACK :: TSSymbol where "mozcpp_anon_sym_LBRACK_RBRACK \<equiv> 213"
abbreviation (input) mozcpp_anon_sym_DQUOTE_DQUOTE :: TSSymbol where "mozcpp_anon_sym_DQUOTE_DQUOTE \<equiv> 214"
abbreviation (input) mozcpp_sym_this :: TSSymbol where "mozcpp_sym_this \<equiv> 215"
abbreviation (input) mozcpp_sym_literal_suffix :: TSSymbol where "mozcpp_sym_literal_suffix \<equiv> 216"
abbreviation (input) mozcpp_sym_alone_macro :: TSSymbol where "mozcpp_sym_alone_macro \<equiv> 217"
abbreviation (input) mozcpp_aux_sym_alone_macro_call_token1 :: TSSymbol where "mozcpp_aux_sym_alone_macro_call_token1 \<equiv> 218"
abbreviation (input) mozcpp_anon_sym_CACHE_TRY_INSPECT :: TSSymbol where "mozcpp_anon_sym_CACHE_TRY_INSPECT \<equiv> 219"
abbreviation (input) mozcpp_anon_sym_CACHE_TRY_UNWRAP :: TSSymbol where "mozcpp_anon_sym_CACHE_TRY_UNWRAP \<equiv> 220"
abbreviation (input) mozcpp_anon_sym_FORWARD :: TSSymbol where "mozcpp_anon_sym_FORWARD \<equiv> 221"
abbreviation (input) mozcpp_anon_sym_FORWARD_SET_ATTRIBUTE :: TSSymbol where "mozcpp_anon_sym_FORWARD_SET_ATTRIBUTE \<equiv> 222"
abbreviation (input) mozcpp_anon_sym_IDB_TRY_INSPECT :: TSSymbol where "mozcpp_anon_sym_IDB_TRY_INSPECT \<equiv> 223"
abbreviation (input) mozcpp_anon_sym_IDB_TRY_UNWRAP :: TSSymbol where "mozcpp_anon_sym_IDB_TRY_UNWRAP \<equiv> 224"
abbreviation (input) mozcpp_anon_sym_LS_TRY_INSPECT :: TSSymbol where "mozcpp_anon_sym_LS_TRY_INSPECT \<equiv> 225"
abbreviation (input) mozcpp_anon_sym_LS_TRY_UNWRAP :: TSSymbol where "mozcpp_anon_sym_LS_TRY_UNWRAP \<equiv> 226"
abbreviation (input) mozcpp_anon_sym_SDB_TRY_INSPECT :: TSSymbol where "mozcpp_anon_sym_SDB_TRY_INSPECT \<equiv> 227"
abbreviation (input) mozcpp_anon_sym_SDB_TRY_UNWRAP :: TSSymbol where "mozcpp_anon_sym_SDB_TRY_UNWRAP \<equiv> 228"
abbreviation (input) mozcpp_anon_sym_PS_GET :: TSSymbol where "mozcpp_anon_sym_PS_GET \<equiv> 229"
abbreviation (input) mozcpp_anon_sym_PS_GET_AND_SET :: TSSymbol where "mozcpp_anon_sym_PS_GET_AND_SET \<equiv> 230"
abbreviation (input) mozcpp_anon_sym_PS_GET_LOCKLESS :: TSSymbol where "mozcpp_anon_sym_PS_GET_LOCKLESS \<equiv> 231"
abbreviation (input) mozcpp_anon_sym_QM_TRY_INSPECT :: TSSymbol where "mozcpp_anon_sym_QM_TRY_INSPECT \<equiv> 232"
abbreviation (input) mozcpp_anon_sym_QM_NOTEONLY_TRY_UNWRAP :: TSSymbol where "mozcpp_anon_sym_QM_NOTEONLY_TRY_UNWRAP \<equiv> 233"
abbreviation (input) mozcpp_anon_sym_QM_TRY_UNWRAP :: TSSymbol where "mozcpp_anon_sym_QM_TRY_UNWRAP \<equiv> 234"
abbreviation (input) mozcpp_anon_sym_QM_WARNONLY_TRY_UNWRAP :: TSSymbol where "mozcpp_anon_sym_QM_WARNONLY_TRY_UNWRAP \<equiv> 235"
abbreviation (input) mozcpp_sym_macro_statement :: TSSymbol where "mozcpp_sym_macro_statement \<equiv> 236"
abbreviation (input) mozcpp_anon_sym_MOZ_ALLOCATOR :: TSSymbol where "mozcpp_anon_sym_MOZ_ALLOCATOR \<equiv> 237"
abbreviation (input) mozcpp_anon_sym_MOZ_ALLOW_TEMPORARY :: TSSymbol where "mozcpp_anon_sym_MOZ_ALLOW_TEMPORARY \<equiv> 238"
abbreviation (input) mozcpp_anon_sym_MOZ_ALWAYS_INLINE :: TSSymbol where "mozcpp_anon_sym_MOZ_ALWAYS_INLINE \<equiv> 239"
abbreviation (input) mozcpp_anon_sym_MOZ_ALWAYS_INLINE_EVEN_DEBUG :: TSSymbol where "mozcpp_anon_sym_MOZ_ALWAYS_INLINE_EVEN_DEBUG \<equiv> 240"
abbreviation (input) mozcpp_anon_sym_MOZ_ASAN_BLACKLIST :: TSSymbol where "mozcpp_anon_sym_MOZ_ASAN_BLACKLIST \<equiv> 241"
abbreviation (input) mozcpp_anon_sym_MOZ_CAN_RUN_SCRIPT :: TSSymbol where "mozcpp_anon_sym_MOZ_CAN_RUN_SCRIPT \<equiv> 242"
abbreviation (input) mozcpp_anon_sym_MOZ_CAN_RUN_SCRIPT_BOUNDARY :: TSSymbol where "mozcpp_anon_sym_MOZ_CAN_RUN_SCRIPT_BOUNDARY \<equiv> 243"
abbreviation (input) mozcpp_anon_sym_MOZ_CAN_RUN_SCRIPT_FOR_DEFINITION :: TSSymbol where "mozcpp_anon_sym_MOZ_CAN_RUN_SCRIPT_FOR_DEFINITION \<equiv> 244"
abbreviation (input) mozcpp_anon_sym_MOZ_COLD :: TSSymbol where "mozcpp_anon_sym_MOZ_COLD \<equiv> 245"
abbreviation (input) mozcpp_anon_sym_MOZ_FALLTHROUGH :: TSSymbol where "mozcpp_anon_sym_MOZ_FALLTHROUGH \<equiv> 246"
abbreviation (input) mozcpp_anon_sym_MOZ_FORMAT_PRINTF :: TSSymbol where "mozcpp_anon_sym_MOZ_FORMAT_PRINTF \<equiv> 247"
abbreviation (input) mozcpp_anon_sym_MOZ_HAVE_ANALYZER_NORETURN :: TSSymbol where "mozcpp_anon_sym_MOZ_HAVE_ANALYZER_NORETURN \<equiv> 248"
abbreviation (input) mozcpp_anon_sym_MOZ_HAVE_ASAN_BLACKLIST :: TSSymbol where "mozcpp_anon_sym_MOZ_HAVE_ASAN_BLACKLIST \<equiv> 249"
abbreviation (input) mozcpp_anon_sym_MOZ_HAVE_NEVER_INLINE :: TSSymbol where "mozcpp_anon_sym_MOZ_HAVE_NEVER_INLINE \<equiv> 250"
abbreviation (input) mozcpp_anon_sym_MOZ_HAVE_NORETURN :: TSSymbol where "mozcpp_anon_sym_MOZ_HAVE_NORETURN \<equiv> 251"
abbreviation (input) mozcpp_anon_sym_MOZ_HAVE_NORETURN_PTR :: TSSymbol where "mozcpp_anon_sym_MOZ_HAVE_NORETURN_PTR \<equiv> 252"
abbreviation (input) mozcpp_anon_sym_MOZ_HAVE_NO_SANITIZE_ATTR :: TSSymbol where "mozcpp_anon_sym_MOZ_HAVE_NO_SANITIZE_ATTR \<equiv> 253"
abbreviation (input) mozcpp_anon_sym_MOZ_HAVE_SIGNED_OVERFLOW_SANITIZE_ATTR :: TSSymbol where "mozcpp_anon_sym_MOZ_HAVE_SIGNED_OVERFLOW_SANITIZE_ATTR \<equiv> 254"
abbreviation (input) mozcpp_anon_sym_MOZ_HAVE_UNSIGNED_OVERFLOW_SANITIZE_ATTR :: TSSymbol where "mozcpp_anon_sym_MOZ_HAVE_UNSIGNED_OVERFLOW_SANITIZE_ATTR \<equiv> 255"
abbreviation (input) mozcpp_anon_sym_MOZ_HEAP_ALLOCATOR :: TSSymbol where "mozcpp_anon_sym_MOZ_HEAP_ALLOCATOR \<equiv> 256"
abbreviation (input) mozcpp_anon_sym_MOZ_HEAP_CLASS :: TSSymbol where "mozcpp_anon_sym_MOZ_HEAP_CLASS \<equiv> 257"
abbreviation (input) mozcpp_anon_sym_MOZ_IMPLICIT :: TSSymbol where "mozcpp_anon_sym_MOZ_IMPLICIT \<equiv> 258"
abbreviation (input) mozcpp_anon_sym_MOZ_INHERIT_TYPE_ANNOTATIONS_FROM_TEMPLATE_ARGS :: TSSymbol where "mozcpp_anon_sym_MOZ_INHERIT_TYPE_ANNOTATIONS_FROM_TEMPLATE_ARGS \<equiv> 259"
abbreviation (input) mozcpp_anon_sym_MOZ_INIT_OUTSIDE_CTOR :: TSSymbol where "mozcpp_anon_sym_MOZ_INIT_OUTSIDE_CTOR \<equiv> 260"
abbreviation (input) mozcpp_anon_sym_MOZ_IS_CLASS_INIT :: TSSymbol where "mozcpp_anon_sym_MOZ_IS_CLASS_INIT \<equiv> 261"
abbreviation (input) mozcpp_anon_sym_MOZ_IS_REFPTR :: TSSymbol where "mozcpp_anon_sym_MOZ_IS_REFPTR \<equiv> 262"
abbreviation (input) mozcpp_anon_sym_MOZ_IS_SMARTPTR_TO_REFCOUNTED :: TSSymbol where "mozcpp_anon_sym_MOZ_IS_SMARTPTR_TO_REFCOUNTED \<equiv> 263"
abbreviation (input) mozcpp_anon_sym_MOZ_MAYBE_UNUSED :: TSSymbol where "mozcpp_anon_sym_MOZ_MAYBE_UNUSED \<equiv> 264"
abbreviation (input) mozcpp_anon_sym_MOZ_MAY_CALL_AFTER_MUST_RETURN :: TSSymbol where "mozcpp_anon_sym_MOZ_MAY_CALL_AFTER_MUST_RETURN \<equiv> 265"
abbreviation (input) mozcpp_anon_sym_MOZ_MUST_OVERRIDE :: TSSymbol where "mozcpp_anon_sym_MOZ_MUST_OVERRIDE \<equiv> 266"
abbreviation (input) mozcpp_anon_sym_MOZ_MUST_RETURN_FROM_CALLER_IF_THIS_IS_ARG :: TSSymbol where "mozcpp_anon_sym_MOZ_MUST_RETURN_FROM_CALLER_IF_THIS_IS_ARG \<equiv> 267"
abbreviation (input) mozcpp_anon_sym_MOZ_MUST_USE :: TSSymbol where "mozcpp_anon_sym_MOZ_MUST_USE \<equiv> 268"
abbreviation (input) mozcpp_anon_sym_MOZ_MUST_USE_TYPE :: TSSymbol where "mozcpp_anon_sym_MOZ_MUST_USE_TYPE \<equiv> 269"
abbreviation (input) mozcpp_anon_sym_MOZ_NEEDS_MEMMOVABLE_MEMBERS :: TSSymbol where "mozcpp_anon_sym_MOZ_NEEDS_MEMMOVABLE_MEMBERS \<equiv> 270"
abbreviation (input) mozcpp_anon_sym_MOZ_NEEDS_MEMMOVABLE_TYPE :: TSSymbol where "mozcpp_anon_sym_MOZ_NEEDS_MEMMOVABLE_TYPE \<equiv> 271"
abbreviation (input) mozcpp_anon_sym_MOZ_NEEDS_NO_VTABLE_TYPE :: TSSymbol where "mozcpp_anon_sym_MOZ_NEEDS_NO_VTABLE_TYPE \<equiv> 272"
abbreviation (input) mozcpp_anon_sym_MOZ_NEVER_INLINE :: TSSymbol where "mozcpp_anon_sym_MOZ_NEVER_INLINE \<equiv> 273"
abbreviation (input) mozcpp_anon_sym_MOZ_NEVER_INLINE_DEBUG :: TSSymbol where "mozcpp_anon_sym_MOZ_NEVER_INLINE_DEBUG \<equiv> 274"
abbreviation (input) mozcpp_anon_sym_MOZ_NONHEAP_CLASS :: TSSymbol where "mozcpp_anon_sym_MOZ_NONHEAP_CLASS \<equiv> 275"
abbreviation (input) mozcpp_anon_sym_MOZ_NONNULL :: TSSymbol where "mozcpp_anon_sym_MOZ_NONNULL \<equiv> 276"
abbreviation (input) mozcpp_anon_sym_MOZ_NONNULL_RETURN :: TSSymbol where "mozcpp_anon_sym_MOZ_NONNULL_RETURN \<equiv> 277"
abbreviation (input) mozcpp_anon_sym_MOZ_NON_AUTOABLE :: TSSymbol where "mozcpp_anon_sym_MOZ_NON_AUTOABLE \<equiv> 278"
abbreviation (input) mozcpp_anon_sym_MOZ_NON_MEMMOVABLE :: TSSymbol where "mozcpp_anon_sym_MOZ_NON_MEMMOVABLE \<equiv> 279"
abbreviation (input) mozcpp_anon_sym_MOZ_NON_OWNING_REF :: TSSymbol where "mozcpp_anon_sym_MOZ_NON_OWNING_REF \<equiv> 280"
abbreviation (input) mozcpp_anon_sym_MOZ_NON_PARAM :: TSSymbol where "mozcpp_anon_sym_MOZ_NON_PARAM \<equiv> 281"
abbreviation (input) mozcpp_anon_sym_MOZ_NON_TEMPORARY_CLASS :: TSSymbol where "mozcpp_anon_sym_MOZ_NON_TEMPORARY_CLASS \<equiv> 282"
abbreviation (input) mozcpp_anon_sym_MOZ_NORETURN :: TSSymbol where "mozcpp_anon_sym_MOZ_NORETURN \<equiv> 283"
abbreviation (input) mozcpp_anon_sym_MOZ_NORETURN_PTR :: TSSymbol where "mozcpp_anon_sym_MOZ_NORETURN_PTR \<equiv> 284"
abbreviation (input) mozcpp_anon_sym_MOZ_NO_ADDREF_RELEASE_ON_RETURN :: TSSymbol where "mozcpp_anon_sym_MOZ_NO_ADDREF_RELEASE_ON_RETURN \<equiv> 285"
abbreviation (input) mozcpp_anon_sym_MOZ_NO_ARITHMETIC_EXPR_IN_ARGUMENT :: TSSymbol where "mozcpp_anon_sym_MOZ_NO_ARITHMETIC_EXPR_IN_ARGUMENT \<equiv> 286"
abbreviation (input) mozcpp_anon_sym_MOZ_NO_DANGLING_ON_TEMPORARIES :: TSSymbol where "mozcpp_anon_sym_MOZ_NO_DANGLING_ON_TEMPORARIES \<equiv> 287"
abbreviation (input) mozcpp_anon_sym_MOZ_NO_SANITIZE_SIGNED_OVERFLOW :: TSSymbol where "mozcpp_anon_sym_MOZ_NO_SANITIZE_SIGNED_OVERFLOW \<equiv> 288"
abbreviation (input) mozcpp_anon_sym_MOZ_NO_SANITIZE_UNSIGNED_OVERFLOW :: TSSymbol where "mozcpp_anon_sym_MOZ_NO_SANITIZE_UNSIGNED_OVERFLOW \<equiv> 289"
abbreviation (input) mozcpp_anon_sym_MOZ_ONLY_USED_TO_AVOID_STATIC_CONSTRUCTORS :: TSSymbol where "mozcpp_anon_sym_MOZ_ONLY_USED_TO_AVOID_STATIC_CONSTRUCTORS \<equiv> 290"
abbreviation (input) mozcpp_anon_sym_MOZ_OWNING_REF :: TSSymbol where "mozcpp_anon_sym_MOZ_OWNING_REF \<equiv> 291"
abbreviation (input) mozcpp_anon_sym_MOZ_POP_DISABLE_NONTRIVIAL_UNION_WARNINGS :: TSSymbol where "mozcpp_anon_sym_MOZ_POP_DISABLE_NONTRIVIAL_UNION_WARNINGS \<equiv> 292"
abbreviation (input) mozcpp_anon_sym_MOZ_PRETEND_NORETURN_FOR_STATIC_ANALYSIS :: TSSymbol where "mozcpp_anon_sym_MOZ_PRETEND_NORETURN_FOR_STATIC_ANALYSIS \<equiv> 293"
abbreviation (input) mozcpp_anon_sym_MOZ_PUSH_DISABLE_NONTRIVIAL_UNION_WARNINGS :: TSSymbol where "mozcpp_anon_sym_MOZ_PUSH_DISABLE_NONTRIVIAL_UNION_WARNINGS \<equiv> 294"
abbreviation (input) mozcpp_anon_sym_MOZ_RAII :: TSSymbol where "mozcpp_anon_sym_MOZ_RAII \<equiv> 295"
abbreviation (input) mozcpp_anon_sym_MOZ_REQUIRED_BASE_METHOD :: TSSymbol where "mozcpp_anon_sym_MOZ_REQUIRED_BASE_METHOD \<equiv> 296"
abbreviation (input) mozcpp_anon_sym_MOZ_STACK_CLASS :: TSSymbol where "mozcpp_anon_sym_MOZ_STACK_CLASS \<equiv> 297"
abbreviation (input) mozcpp_anon_sym_MOZ_STATIC_CLASS :: TSSymbol where "mozcpp_anon_sym_MOZ_STATIC_CLASS \<equiv> 298"
abbreviation (input) mozcpp_anon_sym_MOZ_STATIC_LOCAL_CLASS :: TSSymbol where "mozcpp_anon_sym_MOZ_STATIC_LOCAL_CLASS \<equiv> 299"
abbreviation (input) mozcpp_anon_sym_MOZ_TEMPORARY_CLASS :: TSSymbol where "mozcpp_anon_sym_MOZ_TEMPORARY_CLASS \<equiv> 300"
abbreviation (input) mozcpp_anon_sym_MOZ_TRIVIAL_CTOR_DTOR :: TSSymbol where "mozcpp_anon_sym_MOZ_TRIVIAL_CTOR_DTOR \<equiv> 301"
abbreviation (input) mozcpp_anon_sym_MOZ_TSAN_BLACKLIST :: TSSymbol where "mozcpp_anon_sym_MOZ_TSAN_BLACKLIST \<equiv> 302"
abbreviation (input) mozcpp_anon_sym_MOZ_UNSAFE_REF :: TSSymbol where "mozcpp_anon_sym_MOZ_UNSAFE_REF \<equiv> 303"
abbreviation (input) mozcpp_anon_sym_MOZ_XPCOM_ABI :: TSSymbol where "mozcpp_anon_sym_MOZ_XPCOM_ABI \<equiv> 304"
abbreviation (input) mozcpp_anon_sym_JS_PUBLIC_API :: TSSymbol where "mozcpp_anon_sym_JS_PUBLIC_API \<equiv> 305"
abbreviation (input) mozcpp_sym_raw_string_delimiter :: TSSymbol where "mozcpp_sym_raw_string_delimiter \<equiv> 306"
abbreviation (input) mozcpp_sym_raw_string_content :: TSSymbol where "mozcpp_sym_raw_string_content \<equiv> 307"
abbreviation (input) mozcpp_sym_translation_unit :: TSSymbol where "mozcpp_sym_translation_unit \<equiv> 308"
abbreviation (input) mozcpp_sym__top_level_item :: TSSymbol where "mozcpp_sym__top_level_item \<equiv> 309"
abbreviation (input) mozcpp_sym__block_item :: TSSymbol where "mozcpp_sym__block_item \<equiv> 310"
abbreviation (input) mozcpp_sym_preproc_include :: TSSymbol where "mozcpp_sym_preproc_include \<equiv> 311"
abbreviation (input) mozcpp_sym_preproc_def :: TSSymbol where "mozcpp_sym_preproc_def \<equiv> 312"
abbreviation (input) mozcpp_sym_preproc_function_def :: TSSymbol where "mozcpp_sym_preproc_function_def \<equiv> 313"
abbreviation (input) mozcpp_sym_preproc_params :: TSSymbol where "mozcpp_sym_preproc_params \<equiv> 314"
abbreviation (input) mozcpp_sym_preproc_call :: TSSymbol where "mozcpp_sym_preproc_call \<equiv> 315"
abbreviation (input) mozcpp_sym_preproc_if :: TSSymbol where "mozcpp_sym_preproc_if \<equiv> 316"
abbreviation (input) mozcpp_sym_preproc_ifdef :: TSSymbol where "mozcpp_sym_preproc_ifdef \<equiv> 317"
abbreviation (input) mozcpp_sym_preproc_else :: TSSymbol where "mozcpp_sym_preproc_else \<equiv> 318"
abbreviation (input) mozcpp_sym_preproc_elif :: TSSymbol where "mozcpp_sym_preproc_elif \<equiv> 319"
abbreviation (input) mozcpp_sym_preproc_elifdef :: TSSymbol where "mozcpp_sym_preproc_elifdef \<equiv> 320"
abbreviation (input) mozcpp_sym_preproc_if_in_field_declaration_list :: TSSymbol where "mozcpp_sym_preproc_if_in_field_declaration_list \<equiv> 321"
abbreviation (input) mozcpp_sym_preproc_ifdef_in_field_declaration_list :: TSSymbol where "mozcpp_sym_preproc_ifdef_in_field_declaration_list \<equiv> 322"
abbreviation (input) mozcpp_sym_preproc_else_in_field_declaration_list :: TSSymbol where "mozcpp_sym_preproc_else_in_field_declaration_list \<equiv> 323"
abbreviation (input) mozcpp_sym_preproc_elif_in_field_declaration_list :: TSSymbol where "mozcpp_sym_preproc_elif_in_field_declaration_list \<equiv> 324"
abbreviation (input) mozcpp_sym_preproc_elifdef_in_field_declaration_list :: TSSymbol where "mozcpp_sym_preproc_elifdef_in_field_declaration_list \<equiv> 325"
abbreviation (input) mozcpp_sym_preproc_if_in_enumerator_list :: TSSymbol where "mozcpp_sym_preproc_if_in_enumerator_list \<equiv> 326"
abbreviation (input) mozcpp_sym_preproc_ifdef_in_enumerator_list :: TSSymbol where "mozcpp_sym_preproc_ifdef_in_enumerator_list \<equiv> 327"
abbreviation (input) mozcpp_sym_preproc_else_in_enumerator_list :: TSSymbol where "mozcpp_sym_preproc_else_in_enumerator_list \<equiv> 328"
abbreviation (input) mozcpp_sym_preproc_elif_in_enumerator_list :: TSSymbol where "mozcpp_sym_preproc_elif_in_enumerator_list \<equiv> 329"
abbreviation (input) mozcpp_sym_preproc_elifdef_in_enumerator_list :: TSSymbol where "mozcpp_sym_preproc_elifdef_in_enumerator_list \<equiv> 330"
abbreviation (input) mozcpp_sym_preproc_if_in_enumerator_list_no_comma :: TSSymbol where "mozcpp_sym_preproc_if_in_enumerator_list_no_comma \<equiv> 331"
abbreviation (input) mozcpp_sym_preproc_ifdef_in_enumerator_list_no_comma :: TSSymbol where "mozcpp_sym_preproc_ifdef_in_enumerator_list_no_comma \<equiv> 332"
abbreviation (input) mozcpp_sym_preproc_else_in_enumerator_list_no_comma :: TSSymbol where "mozcpp_sym_preproc_else_in_enumerator_list_no_comma \<equiv> 333"
abbreviation (input) mozcpp_sym_preproc_elif_in_enumerator_list_no_comma :: TSSymbol where "mozcpp_sym_preproc_elif_in_enumerator_list_no_comma \<equiv> 334"
abbreviation (input) mozcpp_sym_preproc_elifdef_in_enumerator_list_no_comma :: TSSymbol where "mozcpp_sym_preproc_elifdef_in_enumerator_list_no_comma \<equiv> 335"
abbreviation (input) mozcpp_sym__preproc_expression :: TSSymbol where "mozcpp_sym__preproc_expression \<equiv> 336"
abbreviation (input) mozcpp_sym_preproc_parenthesized_expression :: TSSymbol where "mozcpp_sym_preproc_parenthesized_expression \<equiv> 337"
abbreviation (input) mozcpp_sym_preproc_defined :: TSSymbol where "mozcpp_sym_preproc_defined \<equiv> 338"
abbreviation (input) mozcpp_sym_preproc_unary_expression :: TSSymbol where "mozcpp_sym_preproc_unary_expression \<equiv> 339"
abbreviation (input) mozcpp_sym_preproc_call_expression :: TSSymbol where "mozcpp_sym_preproc_call_expression \<equiv> 340"
abbreviation (input) mozcpp_sym_preproc_argument_list :: TSSymbol where "mozcpp_sym_preproc_argument_list \<equiv> 341"
abbreviation (input) mozcpp_sym_preproc_binary_expression :: TSSymbol where "mozcpp_sym_preproc_binary_expression \<equiv> 342"
abbreviation (input) mozcpp_sym_function_definition :: TSSymbol where "mozcpp_sym_function_definition \<equiv> 343"
abbreviation (input) mozcpp_sym_declaration :: TSSymbol where "mozcpp_sym_declaration \<equiv> 344"
abbreviation (input) mozcpp_sym_type_definition :: TSSymbol where "mozcpp_sym_type_definition \<equiv> 345"
abbreviation (input) mozcpp_sym__type_definition_type :: TSSymbol where "mozcpp_sym__type_definition_type \<equiv> 346"
abbreviation (input) mozcpp_sym__type_definition_declarators :: TSSymbol where "mozcpp_sym__type_definition_declarators \<equiv> 347"
abbreviation (input) mozcpp_sym__declaration_modifiers :: TSSymbol where "mozcpp_sym__declaration_modifiers \<equiv> 348"
abbreviation (input) mozcpp_sym__declaration_specifiers :: TSSymbol where "mozcpp_sym__declaration_specifiers \<equiv> 349"
abbreviation (input) mozcpp_sym_linkage_specification :: TSSymbol where "mozcpp_sym_linkage_specification \<equiv> 350"
abbreviation (input) mozcpp_sym_attribute_specifier :: TSSymbol where "mozcpp_sym_attribute_specifier \<equiv> 351"
abbreviation (input) mozcpp_sym_attribute :: TSSymbol where "mozcpp_sym_attribute \<equiv> 352"
abbreviation (input) mozcpp_sym_attribute_declaration :: TSSymbol where "mozcpp_sym_attribute_declaration \<equiv> 353"
abbreviation (input) mozcpp_sym_ms_declspec_modifier :: TSSymbol where "mozcpp_sym_ms_declspec_modifier \<equiv> 354"
abbreviation (input) mozcpp_sym_ms_based_modifier :: TSSymbol where "mozcpp_sym_ms_based_modifier \<equiv> 355"
abbreviation (input) mozcpp_sym_ms_call_modifier :: TSSymbol where "mozcpp_sym_ms_call_modifier \<equiv> 356"
abbreviation (input) mozcpp_sym_ms_unaligned_ptr_modifier :: TSSymbol where "mozcpp_sym_ms_unaligned_ptr_modifier \<equiv> 357"
abbreviation (input) mozcpp_sym_ms_pointer_modifier :: TSSymbol where "mozcpp_sym_ms_pointer_modifier \<equiv> 358"
abbreviation (input) mozcpp_sym_declaration_list :: TSSymbol where "mozcpp_sym_declaration_list \<equiv> 359"
abbreviation (input) mozcpp_sym__declarator :: TSSymbol where "mozcpp_sym__declarator \<equiv> 360"
abbreviation (input) mozcpp_sym__field_declarator :: TSSymbol where "mozcpp_sym__field_declarator \<equiv> 361"
abbreviation (input) mozcpp_sym__type_declarator :: TSSymbol where "mozcpp_sym__type_declarator \<equiv> 362"
abbreviation (input) mozcpp_sym__abstract_declarator :: TSSymbol where "mozcpp_sym__abstract_declarator \<equiv> 363"
abbreviation (input) mozcpp_sym_parenthesized_declarator :: TSSymbol where "mozcpp_sym_parenthesized_declarator \<equiv> 364"
abbreviation (input) mozcpp_sym_parenthesized_field_declarator :: TSSymbol where "mozcpp_sym_parenthesized_field_declarator \<equiv> 365"
abbreviation (input) mozcpp_sym_parenthesized_type_declarator :: TSSymbol where "mozcpp_sym_parenthesized_type_declarator \<equiv> 366"
abbreviation (input) mozcpp_sym_abstract_parenthesized_declarator :: TSSymbol where "mozcpp_sym_abstract_parenthesized_declarator \<equiv> 367"
abbreviation (input) mozcpp_sym_attributed_declarator :: TSSymbol where "mozcpp_sym_attributed_declarator \<equiv> 368"
abbreviation (input) mozcpp_sym_attributed_field_declarator :: TSSymbol where "mozcpp_sym_attributed_field_declarator \<equiv> 369"
abbreviation (input) mozcpp_sym_attributed_type_declarator :: TSSymbol where "mozcpp_sym_attributed_type_declarator \<equiv> 370"
abbreviation (input) mozcpp_sym_pointer_declarator :: TSSymbol where "mozcpp_sym_pointer_declarator \<equiv> 371"
abbreviation (input) mozcpp_sym_pointer_field_declarator :: TSSymbol where "mozcpp_sym_pointer_field_declarator \<equiv> 372"
abbreviation (input) mozcpp_sym_pointer_type_declarator :: TSSymbol where "mozcpp_sym_pointer_type_declarator \<equiv> 373"
abbreviation (input) mozcpp_sym_abstract_pointer_declarator :: TSSymbol where "mozcpp_sym_abstract_pointer_declarator \<equiv> 374"
abbreviation (input) mozcpp_sym_function_declarator :: TSSymbol where "mozcpp_sym_function_declarator \<equiv> 375"
abbreviation (input) mozcpp_sym_function_field_declarator :: TSSymbol where "mozcpp_sym_function_field_declarator \<equiv> 376"
abbreviation (input) mozcpp_sym_function_type_declarator :: TSSymbol where "mozcpp_sym_function_type_declarator \<equiv> 377"
abbreviation (input) mozcpp_sym_abstract_function_declarator :: TSSymbol where "mozcpp_sym_abstract_function_declarator \<equiv> 378"
abbreviation (input) mozcpp_sym_array_declarator :: TSSymbol where "mozcpp_sym_array_declarator \<equiv> 379"
abbreviation (input) mozcpp_sym_array_field_declarator :: TSSymbol where "mozcpp_sym_array_field_declarator \<equiv> 380"
abbreviation (input) mozcpp_sym_array_type_declarator :: TSSymbol where "mozcpp_sym_array_type_declarator \<equiv> 381"
abbreviation (input) mozcpp_sym_abstract_array_declarator :: TSSymbol where "mozcpp_sym_abstract_array_declarator \<equiv> 382"
abbreviation (input) mozcpp_sym_init_declarator :: TSSymbol where "mozcpp_sym_init_declarator \<equiv> 383"
abbreviation (input) mozcpp_sym_compound_statement :: TSSymbol where "mozcpp_sym_compound_statement \<equiv> 384"
abbreviation (input) mozcpp_sym_storage_class_specifier :: TSSymbol where "mozcpp_sym_storage_class_specifier \<equiv> 385"
abbreviation (input) mozcpp_sym_type_qualifier :: TSSymbol where "mozcpp_sym_type_qualifier \<equiv> 386"
abbreviation (input) mozcpp_sym_alignas_qualifier :: TSSymbol where "mozcpp_sym_alignas_qualifier \<equiv> 387"
abbreviation (input) mozcpp_sym_type_specifier :: TSSymbol where "mozcpp_sym_type_specifier \<equiv> 388"
abbreviation (input) mozcpp_sym_sized_type_specifier :: TSSymbol where "mozcpp_sym_sized_type_specifier \<equiv> 389"
abbreviation (input) mozcpp_sym_enum_specifier :: TSSymbol where "mozcpp_sym_enum_specifier \<equiv> 390"
abbreviation (input) mozcpp_sym_enumerator_list :: TSSymbol where "mozcpp_sym_enumerator_list \<equiv> 391"
abbreviation (input) mozcpp_sym_struct_specifier :: TSSymbol where "mozcpp_sym_struct_specifier \<equiv> 392"
abbreviation (input) mozcpp_sym_union_specifier :: TSSymbol where "mozcpp_sym_union_specifier \<equiv> 393"
abbreviation (input) mozcpp_sym_field_declaration_list :: TSSymbol where "mozcpp_sym_field_declaration_list \<equiv> 394"
abbreviation (input) mozcpp_sym__field_declaration_list_item :: TSSymbol where "mozcpp_sym__field_declaration_list_item \<equiv> 395"
abbreviation (input) mozcpp_sym_field_declaration :: TSSymbol where "mozcpp_sym_field_declaration \<equiv> 396"
abbreviation (input) mozcpp_sym_bitfield_clause :: TSSymbol where "mozcpp_sym_bitfield_clause \<equiv> 397"
abbreviation (input) mozcpp_sym_enumerator :: TSSymbol where "mozcpp_sym_enumerator \<equiv> 398"
abbreviation (input) mozcpp_sym_parameter_list :: TSSymbol where "mozcpp_sym_parameter_list \<equiv> 399"
abbreviation (input) mozcpp_sym_parameter_declaration :: TSSymbol where "mozcpp_sym_parameter_declaration \<equiv> 400"
abbreviation (input) mozcpp_sym_attributed_statement :: TSSymbol where "mozcpp_sym_attributed_statement \<equiv> 401"
abbreviation (input) mozcpp_sym_statement :: TSSymbol where "mozcpp_sym_statement \<equiv> 402"
abbreviation (input) mozcpp_sym__top_level_statement :: TSSymbol where "mozcpp_sym__top_level_statement \<equiv> 403"
abbreviation (input) mozcpp_sym_labeled_statement :: TSSymbol where "mozcpp_sym_labeled_statement \<equiv> 404"
abbreviation (input) mozcpp_sym__top_level_expression_statement :: TSSymbol where "mozcpp_sym__top_level_expression_statement \<equiv> 405"
abbreviation (input) mozcpp_sym_expression_statement :: TSSymbol where "mozcpp_sym_expression_statement \<equiv> 406"
abbreviation (input) mozcpp_sym_if_statement :: TSSymbol where "mozcpp_sym_if_statement \<equiv> 407"
abbreviation (input) mozcpp_sym_else_clause :: TSSymbol where "mozcpp_sym_else_clause \<equiv> 408"
abbreviation (input) mozcpp_sym_switch_statement :: TSSymbol where "mozcpp_sym_switch_statement \<equiv> 409"
abbreviation (input) mozcpp_sym_case_statement :: TSSymbol where "mozcpp_sym_case_statement \<equiv> 410"
abbreviation (input) mozcpp_sym_while_statement :: TSSymbol where "mozcpp_sym_while_statement \<equiv> 411"
abbreviation (input) mozcpp_sym_do_statement :: TSSymbol where "mozcpp_sym_do_statement \<equiv> 412"
abbreviation (input) mozcpp_sym_for_statement :: TSSymbol where "mozcpp_sym_for_statement \<equiv> 413"
abbreviation (input) mozcpp_sym__for_statement_body :: TSSymbol where "mozcpp_sym__for_statement_body \<equiv> 414"
abbreviation (input) mozcpp_sym_return_statement :: TSSymbol where "mozcpp_sym_return_statement \<equiv> 415"
abbreviation (input) mozcpp_sym_break_statement :: TSSymbol where "mozcpp_sym_break_statement \<equiv> 416"
abbreviation (input) mozcpp_sym_continue_statement :: TSSymbol where "mozcpp_sym_continue_statement \<equiv> 417"
abbreviation (input) mozcpp_sym_goto_statement :: TSSymbol where "mozcpp_sym_goto_statement \<equiv> 418"
abbreviation (input) mozcpp_sym_seh_try_statement :: TSSymbol where "mozcpp_sym_seh_try_statement \<equiv> 419"
abbreviation (input) mozcpp_sym_seh_except_clause :: TSSymbol where "mozcpp_sym_seh_except_clause \<equiv> 420"
abbreviation (input) mozcpp_sym_seh_finally_clause :: TSSymbol where "mozcpp_sym_seh_finally_clause \<equiv> 421"
abbreviation (input) mozcpp_sym_seh_leave_statement :: TSSymbol where "mozcpp_sym_seh_leave_statement \<equiv> 422"
abbreviation (input) mozcpp_sym_expression :: TSSymbol where "mozcpp_sym_expression \<equiv> 423"
abbreviation (input) mozcpp_sym__string :: TSSymbol where "mozcpp_sym__string \<equiv> 424"
abbreviation (input) mozcpp_sym_comma_expression :: TSSymbol where "mozcpp_sym_comma_expression \<equiv> 425"
abbreviation (input) mozcpp_sym_conditional_expression :: TSSymbol where "mozcpp_sym_conditional_expression \<equiv> 426"
abbreviation (input) mozcpp_sym_assignment_expression :: TSSymbol where "mozcpp_sym_assignment_expression \<equiv> 427"
abbreviation (input) mozcpp_sym_pointer_expression :: TSSymbol where "mozcpp_sym_pointer_expression \<equiv> 428"
abbreviation (input) mozcpp_sym_unary_expression :: TSSymbol where "mozcpp_sym_unary_expression \<equiv> 429"
abbreviation (input) mozcpp_sym_binary_expression :: TSSymbol where "mozcpp_sym_binary_expression \<equiv> 430"
abbreviation (input) mozcpp_sym_update_expression :: TSSymbol where "mozcpp_sym_update_expression \<equiv> 431"
abbreviation (input) mozcpp_sym_cast_expression :: TSSymbol where "mozcpp_sym_cast_expression \<equiv> 432"
abbreviation (input) mozcpp_sym_type_descriptor :: TSSymbol where "mozcpp_sym_type_descriptor \<equiv> 433"
abbreviation (input) mozcpp_sym_sizeof_expression :: TSSymbol where "mozcpp_sym_sizeof_expression \<equiv> 434"
abbreviation (input) mozcpp_sym_alignof_expression :: TSSymbol where "mozcpp_sym_alignof_expression \<equiv> 435"
abbreviation (input) mozcpp_sym_offsetof_expression :: TSSymbol where "mozcpp_sym_offsetof_expression \<equiv> 436"
abbreviation (input) mozcpp_sym_generic_expression :: TSSymbol where "mozcpp_sym_generic_expression \<equiv> 437"
abbreviation (input) mozcpp_sym_subscript_expression :: TSSymbol where "mozcpp_sym_subscript_expression \<equiv> 438"
abbreviation (input) mozcpp_sym_call_expression :: TSSymbol where "mozcpp_sym_call_expression \<equiv> 439"
abbreviation (input) mozcpp_sym_gnu_asm_expression :: TSSymbol where "mozcpp_sym_gnu_asm_expression \<equiv> 440"
abbreviation (input) mozcpp_sym_gnu_asm_qualifier :: TSSymbol where "mozcpp_sym_gnu_asm_qualifier \<equiv> 441"
abbreviation (input) mozcpp_sym_gnu_asm_output_operand_list :: TSSymbol where "mozcpp_sym_gnu_asm_output_operand_list \<equiv> 442"
abbreviation (input) mozcpp_sym_gnu_asm_output_operand :: TSSymbol where "mozcpp_sym_gnu_asm_output_operand \<equiv> 443"
abbreviation (input) mozcpp_sym_gnu_asm_input_operand_list :: TSSymbol where "mozcpp_sym_gnu_asm_input_operand_list \<equiv> 444"
abbreviation (input) mozcpp_sym_gnu_asm_input_operand :: TSSymbol where "mozcpp_sym_gnu_asm_input_operand \<equiv> 445"
abbreviation (input) mozcpp_sym_gnu_asm_clobber_list :: TSSymbol where "mozcpp_sym_gnu_asm_clobber_list \<equiv> 446"
abbreviation (input) mozcpp_sym_gnu_asm_goto_list :: TSSymbol where "mozcpp_sym_gnu_asm_goto_list \<equiv> 447"
abbreviation (input) mozcpp_sym_extension_expression :: TSSymbol where "mozcpp_sym_extension_expression \<equiv> 448"
abbreviation (input) mozcpp_sym_argument_list :: TSSymbol where "mozcpp_sym_argument_list \<equiv> 449"
abbreviation (input) mozcpp_sym_field_expression :: TSSymbol where "mozcpp_sym_field_expression \<equiv> 450"
abbreviation (input) mozcpp_sym_compound_literal_expression :: TSSymbol where "mozcpp_sym_compound_literal_expression \<equiv> 451"
abbreviation (input) mozcpp_sym_parenthesized_expression :: TSSymbol where "mozcpp_sym_parenthesized_expression \<equiv> 452"
abbreviation (input) mozcpp_sym_initializer_list :: TSSymbol where "mozcpp_sym_initializer_list \<equiv> 453"
abbreviation (input) mozcpp_sym_initializer_pair :: TSSymbol where "mozcpp_sym_initializer_pair \<equiv> 454"
abbreviation (input) mozcpp_sym_subscript_designator :: TSSymbol where "mozcpp_sym_subscript_designator \<equiv> 455"
abbreviation (input) mozcpp_sym_subscript_range_designator :: TSSymbol where "mozcpp_sym_subscript_range_designator \<equiv> 456"
abbreviation (input) mozcpp_sym_field_designator :: TSSymbol where "mozcpp_sym_field_designator \<equiv> 457"
abbreviation (input) mozcpp_sym_char_literal :: TSSymbol where "mozcpp_sym_char_literal \<equiv> 458"
abbreviation (input) mozcpp_sym_concatenated_string :: TSSymbol where "mozcpp_sym_concatenated_string \<equiv> 459"
abbreviation (input) mozcpp_sym_string_literal :: TSSymbol where "mozcpp_sym_string_literal \<equiv> 460"
abbreviation (input) mozcpp_sym_null :: TSSymbol where "mozcpp_sym_null \<equiv> 461"
abbreviation (input) mozcpp_sym__empty_declaration :: TSSymbol where "mozcpp_sym__empty_declaration \<equiv> 462"
abbreviation (input) mozcpp_sym_placeholder_type_specifier :: TSSymbol where "mozcpp_sym_placeholder_type_specifier \<equiv> 463"
abbreviation (input) mozcpp_sym_decltype_auto :: TSSymbol where "mozcpp_sym_decltype_auto \<equiv> 464"
abbreviation (input) mozcpp_sym_decltype :: TSSymbol where "mozcpp_sym_decltype \<equiv> 465"
abbreviation (input) mozcpp_sym__class_declaration :: TSSymbol where "mozcpp_sym__class_declaration \<equiv> 466"
abbreviation (input) mozcpp_sym__class_declaration_item :: TSSymbol where "mozcpp_sym__class_declaration_item \<equiv> 467"
abbreviation (input) mozcpp_sym_class_specifier :: TSSymbol where "mozcpp_sym_class_specifier \<equiv> 468"
abbreviation (input) mozcpp_sym__class_name :: TSSymbol where "mozcpp_sym__class_name \<equiv> 469"
abbreviation (input) mozcpp_sym_virtual_specifier :: TSSymbol where "mozcpp_sym_virtual_specifier \<equiv> 470"
abbreviation (input) mozcpp_sym_explicit_function_specifier :: TSSymbol where "mozcpp_sym_explicit_function_specifier \<equiv> 471"
abbreviation (input) mozcpp_sym_base_class_clause :: TSSymbol where "mozcpp_sym_base_class_clause \<equiv> 472"
abbreviation (input) mozcpp_sym__enum_base_clause :: TSSymbol where "mozcpp_sym__enum_base_clause \<equiv> 473"
abbreviation (input) mozcpp_sym_dependent_type :: TSSymbol where "mozcpp_sym_dependent_type \<equiv> 474"
abbreviation (input) mozcpp_sym_template_declaration :: TSSymbol where "mozcpp_sym_template_declaration \<equiv> 475"
abbreviation (input) mozcpp_sym_template_instantiation :: TSSymbol where "mozcpp_sym_template_instantiation \<equiv> 476"
abbreviation (input) mozcpp_sym_template_parameter_list :: TSSymbol where "mozcpp_sym_template_parameter_list \<equiv> 477"
abbreviation (input) mozcpp_sym_type_parameter_declaration :: TSSymbol where "mozcpp_sym_type_parameter_declaration \<equiv> 478"
abbreviation (input) mozcpp_sym_variadic_type_parameter_declaration :: TSSymbol where "mozcpp_sym_variadic_type_parameter_declaration \<equiv> 479"
abbreviation (input) mozcpp_sym_optional_type_parameter_declaration :: TSSymbol where "mozcpp_sym_optional_type_parameter_declaration \<equiv> 480"
abbreviation (input) mozcpp_sym_template_template_parameter_declaration :: TSSymbol where "mozcpp_sym_template_template_parameter_declaration \<equiv> 481"
abbreviation (input) mozcpp_sym_optional_parameter_declaration :: TSSymbol where "mozcpp_sym_optional_parameter_declaration \<equiv> 482"
abbreviation (input) mozcpp_sym_variadic_parameter_declaration :: TSSymbol where "mozcpp_sym_variadic_parameter_declaration \<equiv> 483"
abbreviation (input) mozcpp_sym_variadic_declarator :: TSSymbol where "mozcpp_sym_variadic_declarator \<equiv> 484"
abbreviation (input) mozcpp_sym_variadic_reference_declarator :: TSSymbol where "mozcpp_sym_variadic_reference_declarator \<equiv> 485"
abbreviation (input) mozcpp_sym_operator_cast :: TSSymbol where "mozcpp_sym_operator_cast \<equiv> 486"
abbreviation (input) mozcpp_sym_field_initializer_list :: TSSymbol where "mozcpp_sym_field_initializer_list \<equiv> 487"
abbreviation (input) mozcpp_sym_field_initializer :: TSSymbol where "mozcpp_sym_field_initializer \<equiv> 488"
abbreviation (input) mozcpp_sym_inline_method_definition :: TSSymbol where "mozcpp_sym_inline_method_definition \<equiv> 489"
abbreviation (input) mozcpp_sym__constructor_specifiers :: TSSymbol where "mozcpp_sym__constructor_specifiers \<equiv> 490"
abbreviation (input) mozcpp_sym_operator_cast_definition :: TSSymbol where "mozcpp_sym_operator_cast_definition \<equiv> 491"
abbreviation (input) mozcpp_sym_operator_cast_declaration :: TSSymbol where "mozcpp_sym_operator_cast_declaration \<equiv> 492"
abbreviation (input) mozcpp_sym_constructor_try_statement :: TSSymbol where "mozcpp_sym_constructor_try_statement \<equiv> 493"
abbreviation (input) mozcpp_sym_constructor_or_destructor_definition :: TSSymbol where "mozcpp_sym_constructor_or_destructor_definition \<equiv> 494"
abbreviation (input) mozcpp_sym_constructor_or_destructor_declaration :: TSSymbol where "mozcpp_sym_constructor_or_destructor_declaration \<equiv> 495"
abbreviation (input) mozcpp_sym_default_method_clause :: TSSymbol where "mozcpp_sym_default_method_clause \<equiv> 496"
abbreviation (input) mozcpp_sym_delete_method_clause :: TSSymbol where "mozcpp_sym_delete_method_clause \<equiv> 497"
abbreviation (input) mozcpp_sym_pure_virtual_clause :: TSSymbol where "mozcpp_sym_pure_virtual_clause \<equiv> 498"
abbreviation (input) mozcpp_sym_friend_declaration :: TSSymbol where "mozcpp_sym_friend_declaration \<equiv> 499"
abbreviation (input) mozcpp_sym_access_specifier :: TSSymbol where "mozcpp_sym_access_specifier \<equiv> 500"
abbreviation (input) mozcpp_sym_reference_declarator :: TSSymbol where "mozcpp_sym_reference_declarator \<equiv> 501"
abbreviation (input) mozcpp_sym_reference_field_declarator :: TSSymbol where "mozcpp_sym_reference_field_declarator \<equiv> 502"
abbreviation (input) mozcpp_sym_reference_type_declarator :: TSSymbol where "mozcpp_sym_reference_type_declarator \<equiv> 503"
abbreviation (input) mozcpp_sym_abstract_reference_declarator :: TSSymbol where "mozcpp_sym_abstract_reference_declarator \<equiv> 504"
abbreviation (input) mozcpp_sym_structured_binding_declarator :: TSSymbol where "mozcpp_sym_structured_binding_declarator \<equiv> 505"
abbreviation (input) mozcpp_sym_ref_qualifier :: TSSymbol where "mozcpp_sym_ref_qualifier \<equiv> 506"
abbreviation (input) mozcpp_sym__function_declarator_seq :: TSSymbol where "mozcpp_sym__function_declarator_seq \<equiv> 507"
abbreviation (input) mozcpp_sym__function_attributes_start :: TSSymbol where "mozcpp_sym__function_attributes_start \<equiv> 508"
abbreviation (input) mozcpp_sym__function_exception_specification :: TSSymbol where "mozcpp_sym__function_exception_specification \<equiv> 509"
abbreviation (input) mozcpp_sym__function_attributes_end :: TSSymbol where "mozcpp_sym__function_attributes_end \<equiv> 510"
abbreviation (input) mozcpp_sym__function_postfix :: TSSymbol where "mozcpp_sym__function_postfix \<equiv> 511"
abbreviation (input) mozcpp_sym_trailing_return_type :: TSSymbol where "mozcpp_sym_trailing_return_type \<equiv> 512"
abbreviation (input) mozcpp_sym_noexcept :: TSSymbol where "mozcpp_sym_noexcept \<equiv> 513"
abbreviation (input) mozcpp_sym_throw_specifier :: TSSymbol where "mozcpp_sym_throw_specifier \<equiv> 514"
abbreviation (input) mozcpp_sym_template_type :: TSSymbol where "mozcpp_sym_template_type \<equiv> 515"
abbreviation (input) mozcpp_sym_template_method :: TSSymbol where "mozcpp_sym_template_method \<equiv> 516"
abbreviation (input) mozcpp_sym_template_function :: TSSymbol where "mozcpp_sym_template_function \<equiv> 517"
abbreviation (input) mozcpp_sym_template_argument_list :: TSSymbol where "mozcpp_sym_template_argument_list \<equiv> 518"
abbreviation (input) mozcpp_sym_namespace_definition :: TSSymbol where "mozcpp_sym_namespace_definition \<equiv> 519"
abbreviation (input) mozcpp_sym_namespace_alias_definition :: TSSymbol where "mozcpp_sym_namespace_alias_definition \<equiv> 520"
abbreviation (input) mozcpp_sym__namespace_specifier :: TSSymbol where "mozcpp_sym__namespace_specifier \<equiv> 521"
abbreviation (input) mozcpp_sym_nested_namespace_specifier :: TSSymbol where "mozcpp_sym_nested_namespace_specifier \<equiv> 522"
abbreviation (input) mozcpp_sym_using_declaration :: TSSymbol where "mozcpp_sym_using_declaration \<equiv> 523"
abbreviation (input) mozcpp_sym_alias_declaration :: TSSymbol where "mozcpp_sym_alias_declaration \<equiv> 524"
abbreviation (input) mozcpp_sym_static_assert_declaration :: TSSymbol where "mozcpp_sym_static_assert_declaration \<equiv> 525"
abbreviation (input) mozcpp_sym_concept_definition :: TSSymbol where "mozcpp_sym_concept_definition \<equiv> 526"
abbreviation (input) mozcpp_sym_for_range_loop :: TSSymbol where "mozcpp_sym_for_range_loop \<equiv> 527"
abbreviation (input) mozcpp_sym__for_range_loop_body :: TSSymbol where "mozcpp_sym__for_range_loop_body \<equiv> 528"
abbreviation (input) mozcpp_sym_init_statement :: TSSymbol where "mozcpp_sym_init_statement \<equiv> 529"
abbreviation (input) mozcpp_sym_condition_clause :: TSSymbol where "mozcpp_sym_condition_clause \<equiv> 530"
abbreviation (input) mozcpp_sym_condition_declaration :: TSSymbol where "mozcpp_sym_condition_declaration \<equiv> 531"
abbreviation (input) mozcpp_sym_co_return_statement :: TSSymbol where "mozcpp_sym_co_return_statement \<equiv> 532"
abbreviation (input) mozcpp_sym_co_yield_statement :: TSSymbol where "mozcpp_sym_co_yield_statement \<equiv> 533"
abbreviation (input) mozcpp_sym_throw_statement :: TSSymbol where "mozcpp_sym_throw_statement \<equiv> 534"
abbreviation (input) mozcpp_sym_try_statement :: TSSymbol where "mozcpp_sym_try_statement \<equiv> 535"
abbreviation (input) mozcpp_sym_catch_clause :: TSSymbol where "mozcpp_sym_catch_clause \<equiv> 536"
abbreviation (input) mozcpp_sym_raw_string_literal :: TSSymbol where "mozcpp_sym_raw_string_literal \<equiv> 537"
abbreviation (input) mozcpp_sym_subscript_argument_list :: TSSymbol where "mozcpp_sym_subscript_argument_list \<equiv> 538"
abbreviation (input) mozcpp_sym_co_await_expression :: TSSymbol where "mozcpp_sym_co_await_expression \<equiv> 539"
abbreviation (input) mozcpp_sym_new_expression :: TSSymbol where "mozcpp_sym_new_expression \<equiv> 540"
abbreviation (input) mozcpp_sym_new_declarator :: TSSymbol where "mozcpp_sym_new_declarator \<equiv> 541"
abbreviation (input) mozcpp_sym_delete_expression :: TSSymbol where "mozcpp_sym_delete_expression \<equiv> 542"
abbreviation (input) mozcpp_sym_type_requirement :: TSSymbol where "mozcpp_sym_type_requirement \<equiv> 543"
abbreviation (input) mozcpp_sym_compound_requirement :: TSSymbol where "mozcpp_sym_compound_requirement \<equiv> 544"
abbreviation (input) mozcpp_sym__requirement :: TSSymbol where "mozcpp_sym__requirement \<equiv> 545"
abbreviation (input) mozcpp_sym_requirement_seq :: TSSymbol where "mozcpp_sym_requirement_seq \<equiv> 546"
abbreviation (input) mozcpp_sym_constraint_conjunction :: TSSymbol where "mozcpp_sym_constraint_conjunction \<equiv> 547"
abbreviation (input) mozcpp_sym_constraint_disjunction :: TSSymbol where "mozcpp_sym_constraint_disjunction \<equiv> 548"
abbreviation (input) mozcpp_sym__requirement_clause_constraint :: TSSymbol where "mozcpp_sym__requirement_clause_constraint \<equiv> 549"
abbreviation (input) mozcpp_sym_requires_clause :: TSSymbol where "mozcpp_sym_requires_clause \<equiv> 550"
abbreviation (input) mozcpp_sym_requires_parameter_list :: TSSymbol where "mozcpp_sym_requires_parameter_list \<equiv> 551"
abbreviation (input) mozcpp_sym_requires_expression :: TSSymbol where "mozcpp_sym_requires_expression \<equiv> 552"
abbreviation (input) mozcpp_sym_lambda_expression :: TSSymbol where "mozcpp_sym_lambda_expression \<equiv> 553"
abbreviation (input) mozcpp_sym_lambda_capture_specifier :: TSSymbol where "mozcpp_sym_lambda_capture_specifier \<equiv> 554"
abbreviation (input) mozcpp_sym_lambda_default_capture :: TSSymbol where "mozcpp_sym_lambda_default_capture \<equiv> 555"
abbreviation (input) mozcpp_sym__lambda_capture_identifier :: TSSymbol where "mozcpp_sym__lambda_capture_identifier \<equiv> 556"
abbreviation (input) mozcpp_sym_lambda_capture_initializer :: TSSymbol where "mozcpp_sym_lambda_capture_initializer \<equiv> 557"
abbreviation (input) mozcpp_sym__lambda_capture :: TSSymbol where "mozcpp_sym__lambda_capture \<equiv> 558"
abbreviation (input) mozcpp_sym__fold_operator :: TSSymbol where "mozcpp_sym__fold_operator \<equiv> 559"
abbreviation (input) mozcpp_sym__binary_fold_operator :: TSSymbol where "mozcpp_sym__binary_fold_operator \<equiv> 560"
abbreviation (input) mozcpp_sym__unary_left_fold :: TSSymbol where "mozcpp_sym__unary_left_fold \<equiv> 561"
abbreviation (input) mozcpp_sym__unary_right_fold :: TSSymbol where "mozcpp_sym__unary_right_fold \<equiv> 562"
abbreviation (input) mozcpp_sym__binary_fold :: TSSymbol where "mozcpp_sym__binary_fold \<equiv> 563"
abbreviation (input) mozcpp_sym_fold_expression :: TSSymbol where "mozcpp_sym_fold_expression \<equiv> 564"
abbreviation (input) mozcpp_sym_parameter_pack_expansion :: TSSymbol where "mozcpp_sym_parameter_pack_expansion \<equiv> 565"
abbreviation (input) mozcpp_sym_type_parameter_pack_expansion :: TSSymbol where "mozcpp_sym_type_parameter_pack_expansion \<equiv> 566"
abbreviation (input) mozcpp_sym_identifier_parameter_pack_expansion :: TSSymbol where "mozcpp_sym_identifier_parameter_pack_expansion \<equiv> 567"
abbreviation (input) mozcpp_sym_destructor_name :: TSSymbol where "mozcpp_sym_destructor_name \<equiv> 568"
abbreviation (input) mozcpp_sym_dependent_identifier :: TSSymbol where "mozcpp_sym_dependent_identifier \<equiv> 569"
abbreviation (input) mozcpp_sym_dependent_field_identifier :: TSSymbol where "mozcpp_sym_dependent_field_identifier \<equiv> 570"
abbreviation (input) mozcpp_sym_dependent_type_identifier :: TSSymbol where "mozcpp_sym_dependent_type_identifier \<equiv> 571"
abbreviation (input) mozcpp_sym__scope_resolution :: TSSymbol where "mozcpp_sym__scope_resolution \<equiv> 572"
abbreviation (input) mozcpp_sym_qualified_field_identifier :: TSSymbol where "mozcpp_sym_qualified_field_identifier \<equiv> 573"
abbreviation (input) mozcpp_sym_qualified_identifier :: TSSymbol where "mozcpp_sym_qualified_identifier \<equiv> 574"
abbreviation (input) mozcpp_sym_qualified_type_identifier :: TSSymbol where "mozcpp_sym_qualified_type_identifier \<equiv> 575"
abbreviation (input) mozcpp_sym_qualified_operator_cast_identifier :: TSSymbol where "mozcpp_sym_qualified_operator_cast_identifier \<equiv> 576"
abbreviation (input) mozcpp_sym__assignment_expression_lhs :: TSSymbol where "mozcpp_sym__assignment_expression_lhs \<equiv> 577"
abbreviation (input) mozcpp_sym_operator_name :: TSSymbol where "mozcpp_sym_operator_name \<equiv> 578"
abbreviation (input) mozcpp_sym_user_defined_literal :: TSSymbol where "mozcpp_sym_user_defined_literal \<equiv> 579"
abbreviation (input) mozcpp_sym_alone_macro_call :: TSSymbol where "mozcpp_sym_alone_macro_call \<equiv> 580"
abbreviation (input) mozcpp_sym__call_macro_with_decl_first_arg :: TSSymbol where "mozcpp_sym__call_macro_with_decl_first_arg \<equiv> 581"
abbreviation (input) mozcpp_sym_macro_annotation :: TSSymbol where "mozcpp_sym_macro_annotation \<equiv> 582"
abbreviation (input) mozcpp_aux_sym_translation_unit_repeat1 :: TSSymbol where "mozcpp_aux_sym_translation_unit_repeat1 \<equiv> 583"
abbreviation (input) mozcpp_aux_sym_preproc_params_repeat1 :: TSSymbol where "mozcpp_aux_sym_preproc_params_repeat1 \<equiv> 584"
abbreviation (input) mozcpp_aux_sym_preproc_if_repeat1 :: TSSymbol where "mozcpp_aux_sym_preproc_if_repeat1 \<equiv> 585"
abbreviation (input) mozcpp_aux_sym_preproc_if_in_field_declaration_list_repeat1 :: TSSymbol where "mozcpp_aux_sym_preproc_if_in_field_declaration_list_repeat1 \<equiv> 586"
abbreviation (input) mozcpp_aux_sym_preproc_if_in_enumerator_list_repeat1 :: TSSymbol where "mozcpp_aux_sym_preproc_if_in_enumerator_list_repeat1 \<equiv> 587"
abbreviation (input) mozcpp_aux_sym_preproc_if_in_enumerator_list_no_comma_repeat1 :: TSSymbol where "mozcpp_aux_sym_preproc_if_in_enumerator_list_no_comma_repeat1 \<equiv> 588"
abbreviation (input) mozcpp_aux_sym_preproc_argument_list_repeat1 :: TSSymbol where "mozcpp_aux_sym_preproc_argument_list_repeat1 \<equiv> 589"
abbreviation (input) mozcpp_aux_sym_declaration_repeat1 :: TSSymbol where "mozcpp_aux_sym_declaration_repeat1 \<equiv> 590"
abbreviation (input) mozcpp_aux_sym_type_definition_repeat1 :: TSSymbol where "mozcpp_aux_sym_type_definition_repeat1 \<equiv> 591"
abbreviation (input) mozcpp_aux_sym__type_definition_type_repeat1 :: TSSymbol where "mozcpp_aux_sym__type_definition_type_repeat1 \<equiv> 592"
abbreviation (input) mozcpp_aux_sym__type_definition_declarators_repeat1 :: TSSymbol where "mozcpp_aux_sym__type_definition_declarators_repeat1 \<equiv> 593"
abbreviation (input) mozcpp_aux_sym__declaration_specifiers_repeat1 :: TSSymbol where "mozcpp_aux_sym__declaration_specifiers_repeat1 \<equiv> 594"
abbreviation (input) mozcpp_aux_sym_attribute_declaration_repeat1 :: TSSymbol where "mozcpp_aux_sym_attribute_declaration_repeat1 \<equiv> 595"
abbreviation (input) mozcpp_aux_sym_attributed_declarator_repeat1 :: TSSymbol where "mozcpp_aux_sym_attributed_declarator_repeat1 \<equiv> 596"
abbreviation (input) mozcpp_aux_sym_pointer_declarator_repeat1 :: TSSymbol where "mozcpp_aux_sym_pointer_declarator_repeat1 \<equiv> 597"
abbreviation (input) mozcpp_aux_sym_array_declarator_repeat1 :: TSSymbol where "mozcpp_aux_sym_array_declarator_repeat1 \<equiv> 598"
abbreviation (input) mozcpp_aux_sym_sized_type_specifier_repeat1 :: TSSymbol where "mozcpp_aux_sym_sized_type_specifier_repeat1 \<equiv> 599"
abbreviation (input) mozcpp_aux_sym_enumerator_list_repeat1 :: TSSymbol where "mozcpp_aux_sym_enumerator_list_repeat1 \<equiv> 600"
abbreviation (input) mozcpp_aux_sym_field_declaration_repeat1 :: TSSymbol where "mozcpp_aux_sym_field_declaration_repeat1 \<equiv> 601"
abbreviation (input) mozcpp_aux_sym_parameter_list_repeat1 :: TSSymbol where "mozcpp_aux_sym_parameter_list_repeat1 \<equiv> 602"
abbreviation (input) mozcpp_aux_sym_case_statement_repeat1 :: TSSymbol where "mozcpp_aux_sym_case_statement_repeat1 \<equiv> 603"
abbreviation (input) mozcpp_aux_sym_generic_expression_repeat1 :: TSSymbol where "mozcpp_aux_sym_generic_expression_repeat1 \<equiv> 604"
abbreviation (input) mozcpp_aux_sym_gnu_asm_expression_repeat1 :: TSSymbol where "mozcpp_aux_sym_gnu_asm_expression_repeat1 \<equiv> 605"
abbreviation (input) mozcpp_aux_sym_gnu_asm_output_operand_list_repeat1 :: TSSymbol where "mozcpp_aux_sym_gnu_asm_output_operand_list_repeat1 \<equiv> 606"
abbreviation (input) mozcpp_aux_sym_gnu_asm_input_operand_list_repeat1 :: TSSymbol where "mozcpp_aux_sym_gnu_asm_input_operand_list_repeat1 \<equiv> 607"
abbreviation (input) mozcpp_aux_sym_gnu_asm_clobber_list_repeat1 :: TSSymbol where "mozcpp_aux_sym_gnu_asm_clobber_list_repeat1 \<equiv> 608"
abbreviation (input) mozcpp_aux_sym_gnu_asm_goto_list_repeat1 :: TSSymbol where "mozcpp_aux_sym_gnu_asm_goto_list_repeat1 \<equiv> 609"
abbreviation (input) mozcpp_aux_sym_argument_list_repeat1 :: TSSymbol where "mozcpp_aux_sym_argument_list_repeat1 \<equiv> 610"
abbreviation (input) mozcpp_aux_sym_initializer_list_repeat1 :: TSSymbol where "mozcpp_aux_sym_initializer_list_repeat1 \<equiv> 611"
abbreviation (input) mozcpp_aux_sym_initializer_pair_repeat1 :: TSSymbol where "mozcpp_aux_sym_initializer_pair_repeat1 \<equiv> 612"
abbreviation (input) mozcpp_aux_sym_char_literal_repeat1 :: TSSymbol where "mozcpp_aux_sym_char_literal_repeat1 \<equiv> 613"
abbreviation (input) mozcpp_aux_sym_concatenated_string_repeat1 :: TSSymbol where "mozcpp_aux_sym_concatenated_string_repeat1 \<equiv> 614"
abbreviation (input) mozcpp_aux_sym_string_literal_repeat1 :: TSSymbol where "mozcpp_aux_sym_string_literal_repeat1 \<equiv> 615"
abbreviation (input) mozcpp_aux_sym__class_declaration_repeat1 :: TSSymbol where "mozcpp_aux_sym__class_declaration_repeat1 \<equiv> 616"
abbreviation (input) mozcpp_aux_sym_class_specifier_repeat1 :: TSSymbol where "mozcpp_aux_sym_class_specifier_repeat1 \<equiv> 617"
abbreviation (input) mozcpp_aux_sym_base_class_clause_repeat1 :: TSSymbol where "mozcpp_aux_sym_base_class_clause_repeat1 \<equiv> 618"
abbreviation (input) mozcpp_aux_sym_template_parameter_list_repeat1 :: TSSymbol where "mozcpp_aux_sym_template_parameter_list_repeat1 \<equiv> 619"
abbreviation (input) mozcpp_aux_sym_field_initializer_list_repeat1 :: TSSymbol where "mozcpp_aux_sym_field_initializer_list_repeat1 \<equiv> 620"
abbreviation (input) mozcpp_aux_sym_operator_cast_definition_repeat1 :: TSSymbol where "mozcpp_aux_sym_operator_cast_definition_repeat1 \<equiv> 621"
abbreviation (input) mozcpp_aux_sym_constructor_try_statement_repeat1 :: TSSymbol where "mozcpp_aux_sym_constructor_try_statement_repeat1 \<equiv> 622"
abbreviation (input) mozcpp_aux_sym_structured_binding_declarator_repeat1 :: TSSymbol where "mozcpp_aux_sym_structured_binding_declarator_repeat1 \<equiv> 623"
abbreviation (input) mozcpp_aux_sym__function_postfix_repeat1 :: TSSymbol where "mozcpp_aux_sym__function_postfix_repeat1 \<equiv> 624"
abbreviation (input) mozcpp_aux_sym_throw_specifier_repeat1 :: TSSymbol where "mozcpp_aux_sym_throw_specifier_repeat1 \<equiv> 625"
abbreviation (input) mozcpp_aux_sym_template_argument_list_repeat1 :: TSSymbol where "mozcpp_aux_sym_template_argument_list_repeat1 \<equiv> 626"
abbreviation (input) mozcpp_aux_sym_subscript_argument_list_repeat1 :: TSSymbol where "mozcpp_aux_sym_subscript_argument_list_repeat1 \<equiv> 627"
abbreviation (input) mozcpp_aux_sym_requirement_seq_repeat1 :: TSSymbol where "mozcpp_aux_sym_requirement_seq_repeat1 \<equiv> 628"
abbreviation (input) mozcpp_aux_sym_requires_parameter_list_repeat1 :: TSSymbol where "mozcpp_aux_sym_requires_parameter_list_repeat1 \<equiv> 629"
abbreviation (input) mozcpp_aux_sym_lambda_capture_specifier_repeat1 :: TSSymbol where "mozcpp_aux_sym_lambda_capture_specifier_repeat1 \<equiv> 630"
abbreviation (input) mozcpp_aux_sym_alone_macro_call_repeat1 :: TSSymbol where "mozcpp_aux_sym_alone_macro_call_repeat1 \<equiv> 631"
abbreviation (input) mozcpp_aux_sym__call_macro_with_decl_first_arg_repeat1 :: TSSymbol where "mozcpp_aux_sym__call_macro_with_decl_first_arg_repeat1 \<equiv> 632"
abbreviation (input) mozcpp_alias_sym_field_identifier :: TSSymbol where "mozcpp_alias_sym_field_identifier \<equiv> 633"
abbreviation (input) mozcpp_alias_sym_namespace_identifier :: TSSymbol where "mozcpp_alias_sym_namespace_identifier \<equiv> 634"
abbreviation (input) mozcpp_alias_sym_simple_requirement :: TSSymbol where "mozcpp_alias_sym_simple_requirement \<equiv> 635"
abbreviation (input) mozcpp_alias_sym_statement_identifier :: TSSymbol where "mozcpp_alias_sym_statement_identifier \<equiv> 636"
abbreviation (input) mozcpp_alias_sym_type_identifier :: TSSymbol where "mozcpp_alias_sym_type_identifier \<equiv> 637"

section \<open>Character sets\<close>

definition mozcpp_sym_identifier_character_set_1 :: "TSCharacterRange list" where
  "mozcpp_sym_identifier_character_set_1 = map (\<lambda>(a, b). \<lparr>range_start = a,
    range_end = b\<rparr>)
    [(36, 36), (65, 90), (92, 92), (95, 95), (97, 122), (170, 170), (181, 181), (186, 186), (192,
      214), (216, 246), (248, 705), (710, 721), (736, 740), (748, 748), (750, 750), (880, 884),
      (886, 887), (891, 893), (895, 895), (902, 902), (904, 906), (908, 908), (910, 929), (931,
      1013), (1015, 1153), (1162, 1327), (1329, 1366), (1369, 1369), (1376, 1416), (1488, 1514),
      (1519, 1522), (1568, 1610), (1646, 1647), (1649, 1747), (1749, 1749), (1765, 1766), (1774,
      1775), (1786, 1788), (1791, 1791), (1808, 1808), (1810, 1839), (1869, 1957), (1969, 1969),
      (1994, 2026), (2036, 2037), (2042, 2042), (2048, 2069), (2074, 2074), (2084, 2084), (2088,
      2088), (2112, 2136), (2144, 2154), (2160, 2183), (2185, 2190), (2208, 2249), (2308, 2361),
      (2365, 2365), (2384, 2384), (2392, 2401), (2417, 2432), (2437, 2444), (2447, 2448), (2451,
      2472), (2474, 2480), (2482, 2482), (2486, 2489), (2493, 2493), (2510, 2510), (2524, 2525),
      (2527, 2529), (2544, 2545), (2556, 2556), (2565, 2570), (2575, 2576), (2579, 2600), (2602,
      2608), (2610, 2611), (2613, 2614), (2616, 2617), (2649, 2652), (2654, 2654), (2674, 2676),
      (2693, 2701), (2703, 2705), (2707, 2728), (2730, 2736), (2738, 2739), (2741, 2745), (2749,
      2749), (2768, 2768), (2784, 2785), (2809, 2809), (2821, 2828), (2831, 2832), (2835, 2856),
      (2858, 2864), (2866, 2867), (2869, 2873), (2877, 2877), (2908, 2909), (2911, 2913), (2929,
      2929), (2947, 2947), (2949, 2954), (2958, 2960), (2962, 2965), (2969, 2970), (2972, 2972),
      (2974, 2975), (2979, 2980), (2984, 2986), (2990, 3001), (3024, 3024), (3077, 3084), (3086,
      3088), (3090, 3112), (3114, 3129), (3133, 3133), (3160, 3162), (3165, 3165), (3168, 3169),
      (3200, 3200), (3205, 3212), (3214, 3216), (3218, 3240), (3242, 3251), (3253, 3257), (3261,
      3261), (3293, 3294), (3296, 3297), (3313, 3314), (3332, 3340), (3342, 3344), (3346, 3386),
      (3389, 3389), (3406, 3406), (3412, 3414), (3423, 3425), (3450, 3455), (3461, 3478), (3482,
      3505), (3507, 3515), (3517, 3517), (3520, 3526), (3585, 3632), (3634, 3634), (3648, 3654),
      (3713, 3714), (3716, 3716), (3718, 3722), (3724, 3747), (3749, 3749), (3751, 3760), (3762,
      3762), (3773, 3773), (3776, 3780), (3782, 3782), (3804, 3807), (3840, 3840), (3904, 3911),
      (3913, 3948), (3976, 3980), (4096, 4138), (4159, 4159), (4176, 4181), (4186, 4189), (4193,
      4193), (4197, 4198), (4206, 4208), (4213, 4225), (4238, 4238), (4256, 4293), (4295, 4295),
      (4301, 4301), (4304, 4346), (4348, 4680), (4682, 4685), (4688, 4694), (4696, 4696), (4698,
      4701), (4704, 4744), (4746, 4749), (4752, 4784), (4786, 4789), (4792, 4798), (4800, 4800),
      (4802, 4805), (4808, 4822), (4824, 4880), (4882, 4885), (4888, 4954), (4992, 5007), (5024,
      5109), (5112, 5117), (5121, 5740), (5743, 5759), (5761, 5786), (5792, 5866), (5870, 5880),
      (5888, 5905), (5919, 5937), (5952, 5969), (5984, 5996), (5998, 6000), (6016, 6067), (6103,
      6103), (6108, 6108), (6176, 6264), (6272, 6312), (6314, 6314), (6320, 6389), (6400, 6430),
      (6480, 6509), (6512, 6516), (6528, 6571), (6576, 6601), (6656, 6678), (6688, 6740), (6823,
      6823), (6917, 6963), (6981, 6988), (7043, 7072), (7086, 7087), (7098, 7141), (7168, 7203),
      (7245, 7247), (7258, 7293), (7296, 7306), (7312, 7354), (7357, 7359), (7401, 7404), (7406,
      7411), (7413, 7414), (7418, 7418), (7424, 7615), (7680, 7957), (7960, 7965), (7968, 8005),
      (8008, 8013), (8016, 8023), (8025, 8025), (8027, 8027), (8029, 8029), (8031, 8061), (8064,
      8116), (8118, 8124), (8126, 8126), (8130, 8132), (8134, 8140), (8144, 8147), (8150, 8155),
      (8160, 8172), (8178, 8180), (8182, 8188), (8305, 8305), (8319, 8319), (8336, 8348), (8450,
      8450), (8455, 8455), (8458, 8467), (8469, 8469), (8472, 8477), (8484, 8484), (8486, 8486),
      (8488, 8488), (8490, 8505), (8508, 8511), (8517, 8521), (8526, 8526), (8544, 8584), (11264,
      11492), (11499, 11502), (11506, 11507), (11520, 11557), (11559, 11559), (11565, 11565),
      (11568, 11623), (11631, 11631), (11648, 11670), (11680, 11686), (11688, 11694), (11696,
      11702), (11704, 11710), (11712, 11718), (11720, 11726), (11728, 11734), (11736, 11742),
      (12293, 12295), (12321, 12329), (12337, 12341), (12344, 12348), (12353, 12438), (12445,
      12447), (12449, 12538), (12540, 12543), (12549, 12591), (12593, 12686), (12704, 12735),
      (12784, 12799), (13312, 19903), (19968, 42124), (42192, 42237), (42240, 42508), (42512,
      42527), (42538, 42539), (42560, 42606), (42623, 42653), (42656, 42735), (42775, 42783),
      (42786, 42888), (42891, 42957), (42960, 42961), (42963, 42963), (42965, 42972), (42994,
      43009), (43011, 43013), (43015, 43018), (43020, 43042), (43072, 43123), (43138, 43187),
      (43250, 43255), (43259, 43259), (43261, 43262), (43274, 43301), (43312, 43334), (43360,
      43388), (43396, 43442), (43471, 43471), (43488, 43492), (43494, 43503), (43514, 43518),
      (43520, 43560), (43584, 43586), (43588, 43595), (43616, 43638), (43642, 43642), (43646,
      43695), (43697, 43697), (43701, 43702), (43705, 43709), (43712, 43712), (43714, 43714),
      (43739, 43741), (43744, 43754), (43762, 43764), (43777, 43782), (43785, 43790), (43793,
      43798), (43808, 43814), (43816, 43822), (43824, 43866), (43868, 43881), (43888, 44002),
      (44032, 55203), (55216, 55238), (55243, 55291), (63744, 64109), (64112, 64217), (64256,
      64262), (64275, 64279), (64285, 64285), (64287, 64296), (64298, 64310), (64312, 64316),
      (64318, 64318), (64320, 64321), (64323, 64324), (64326, 64433), (64467, 64605), (64612,
      64829), (64848, 64911), (64914, 64967), (65008, 65017), (65137, 65137), (65139, 65139),
      (65143, 65143), (65145, 65145), (65147, 65147), (65149, 65149), (65151, 65276), (65313,
      65338), (65345, 65370), (65382, 65437), (65440, 65470), (65474, 65479), (65482, 65487),
      (65490, 65495), (65498, 65500), (65536, 65547), (65549, 65574), (65576, 65594), (65596,
      65597), (65599, 65613), (65616, 65629), (65664, 65786), (65856, 65908), (66176, 66204),
      (66208, 66256), (66304, 66335), (66349, 66378), (66384, 66421), (66432, 66461), (66464,
      66499), (66504, 66511), (66513, 66517), (66560, 66717), (66736, 66771), (66776, 66811),
      (66816, 66855), (66864, 66915), (66928, 66938), (66940, 66954), (66956, 66962), (66964,
      66965), (66967, 66977), (66979, 66993), (66995, 67001), (67003, 67004), (67008, 67059),
      (67072, 67382), (67392, 67413), (67424, 67431), (67456, 67461), (67463, 67504), (67506,
      67514), (67584, 67589), (67592, 67592), (67594, 67637), (67639, 67640), (67644, 67644),
      (67647, 67669), (67680, 67702), (67712, 67742), (67808, 67826), (67828, 67829), (67840,
      67861), (67872, 67897), (67968, 68023), (68030, 68031), (68096, 68096), (68112, 68115),
      (68117, 68119), (68121, 68149), (68192, 68220), (68224, 68252), (68288, 68295), (68297,
      68324), (68352, 68405), (68416, 68437), (68448, 68466), (68480, 68497), (68608, 68680),
      (68736, 68786), (68800, 68850), (68864, 68899), (68938, 68965), (68975, 68997), (69248,
      69289), (69296, 69297), (69314, 69316), (69376, 69404), (69415, 69415), (69424, 69445),
      (69488, 69505), (69552, 69572), (69600, 69622), (69635, 69687), (69745, 69746), (69749,
      69749), (69763, 69807), (69840, 69864), (69891, 69926), (69956, 69956), (69959, 69959),
      (69968, 70002), (70006, 70006), (70019, 70066), (70081, 70084), (70106, 70106), (70108,
      70108), (70144, 70161), (70163, 70187), (70207, 70208), (70272, 70278), (70280, 70280),
      (70282, 70285), (70287, 70301), (70303, 70312), (70320, 70366), (70405, 70412), (70415,
      70416), (70419, 70440), (70442, 70448), (70450, 70451), (70453, 70457), (70461, 70461),
      (70480, 70480), (70493, 70497), (70528, 70537), (70539, 70539), (70542, 70542), (70544,
      70581), (70583, 70583), (70609, 70609), (70611, 70611), (70656, 70708), (70727, 70730),
      (70751, 70753), (70784, 70831), (70852, 70853), (70855, 70855), (71040, 71086), (71128,
      71131), (71168, 71215), (71236, 71236), (71296, 71338), (71352, 71352), (71424, 71450),
      (71488, 71494), (71680, 71723), (71840, 71903), (71935, 71942), (71945, 71945), (71948,
      71955), (71957, 71958), (71960, 71983), (71999, 71999), (72001, 72001), (72096, 72103),
      (72106, 72144), (72161, 72161), (72163, 72163), (72192, 72192), (72203, 72242), (72250,
      72250), (72272, 72272), (72284, 72329), (72349, 72349), (72368, 72440), (72640, 72672),
      (72704, 72712), (72714, 72750), (72768, 72768), (72818, 72847), (72960, 72966), (72968,
      72969), (72971, 73008), (73030, 73030), (73056, 73061), (73063, 73064), (73066, 73097),
      (73112, 73112), (73440, 73458), (73474, 73474), (73476, 73488), (73490, 73523), (73648,
      73648), (73728, 74649), (74752, 74862), (74880, 75075), (77712, 77808), (77824, 78895),
      (78913, 78918), (78944, 82938), (82944, 83526), (90368, 90397), (92160, 92728), (92736,
      92766), (92784, 92862), (92880, 92909), (92928, 92975), (92992, 92995), (93027, 93047),
      (93053, 93071), (93504, 93548), (93760, 93823), (93952, 94026), (94032, 94032), (94099,
      94111), (94176, 94177), (94179, 94179), (94208, 100343), (100352, 101589), (101631,
      101640), (110576, 110579), (110581, 110587), (110589, 110590), (110592, 110882), (110898,
      110898), (110928, 110930), (110933, 110933), (110948, 110951), (110960, 111355), (113664,
      113770), (113776, 113788), (113792, 113800), (113808, 113817), (119808, 119892), (119894,
      119964), (119966, 119967), (119970, 119970), (119973, 119974), (119977, 119980), (119982,
      119993), (119995, 119995), (119997, 120003), (120005, 120069), (120071, 120074), (120077,
      120084), (120086, 120092), (120094, 120121), (120123, 120126), (120128, 120132), (120134,
      120134), (120138, 120144), (120146, 120485), (120488, 120512), (120514, 120538), (120540,
      120570), (120572, 120596), (120598, 120628), (120630, 120654), (120656, 120686), (120688,
      120712), (120714, 120744), (120746, 120770), (120772, 120779), (122624, 122654), (122661,
      122666), (122928, 122989), (123136, 123180), (123191, 123197), (123214, 123214), (123536,
      123565), (123584, 123627), (124112, 124139), (124368, 124397), (124400, 124400), (124896,
      124902), (124904, 124907), (124909, 124910), (124912, 124926), (124928, 125124), (125184,
      125251), (125259, 125259), (126464, 126467), (126469, 126495), (126497, 126498), (126500,
      126500), (126503, 126503), (126505, 126514), (126516, 126519), (126521, 126521), (126523,
      126523), (126530, 126530), (126535, 126535), (126537, 126537), (126539, 126539), (126541,
      126543), (126545, 126546), (126548, 126548), (126551, 126551), (126553, 126553), (126555,
      126555), (126557, 126557), (126559, 126559), (126561, 126562), (126564, 126564), (126567,
      126570), (126572, 126578), (126580, 126583), (126585, 126588), (126590, 126590), (126592,
      126601), (126603, 126619), (126625, 126627), (126629, 126633), (126635, 126651), (131072,
      173791), (173824, 177977), (177984, 178205), (178208, 183969), (183984, 191456), (191472,
      192093), (194560, 195101), (196608, 201546), (201552, 205743)]"

abbreviation mozcpp_starts_identifier :: "codepoint \<Rightarrow> bool" where
  "mozcpp_starts_identifier la \<equiv> set_contains mozcpp_sym_identifier_character_set_1 687 la = Some True"

definition mozcpp_sym_identifier_character_set_2 :: "TSCharacterRange list" where
  "mozcpp_sym_identifier_character_set_2 = map (\<lambda>(a, b). \<lparr>range_start = a,
    range_end = b\<rparr>)
    [(36, 36), (48, 57), (65, 90), (92, 92), (95, 95), (97, 122), (170, 170), (181, 181), (183,
      183), (186, 186), (192, 214), (216, 246), (248, 705), (710, 721), (736, 740), (748, 748),
      (750, 750), (768, 884), (886, 887), (891, 893), (895, 895), (902, 906), (908, 908), (910,
      929), (931, 1013), (1015, 1153), (1155, 1159), (1162, 1327), (1329, 1366), (1369, 1369),
      (1376, 1416), (1425, 1469), (1471, 1471), (1473, 1474), (1476, 1477), (1479, 1479), (1488,
      1514), (1519, 1522), (1552, 1562), (1568, 1641), (1646, 1747), (1749, 1756), (1759, 1768),
      (1770, 1788), (1791, 1791), (1808, 1866), (1869, 1969), (1984, 2037), (2042, 2042), (2045,
      2045), (2048, 2093), (2112, 2139), (2144, 2154), (2160, 2183), (2185, 2190), (2199, 2273),
      (2275, 2403), (2406, 2415), (2417, 2435), (2437, 2444), (2447, 2448), (2451, 2472), (2474,
      2480), (2482, 2482), (2486, 2489), (2492, 2500), (2503, 2504), (2507, 2510), (2519, 2519),
      (2524, 2525), (2527, 2531), (2534, 2545), (2556, 2556), (2558, 2558), (2561, 2563), (2565,
      2570), (2575, 2576), (2579, 2600), (2602, 2608), (2610, 2611), (2613, 2614), (2616, 2617),
      (2620, 2620), (2622, 2626), (2631, 2632), (2635, 2637), (2641, 2641), (2649, 2652), (2654,
      2654), (2662, 2677), (2689, 2691), (2693, 2701), (2703, 2705), (2707, 2728), (2730, 2736),
      (2738, 2739), (2741, 2745), (2748, 2757), (2759, 2761), (2763, 2765), (2768, 2768), (2784,
      2787), (2790, 2799), (2809, 2815), (2817, 2819), (2821, 2828), (2831, 2832), (2835, 2856),
      (2858, 2864), (2866, 2867), (2869, 2873), (2876, 2884), (2887, 2888), (2891, 2893), (2901,
      2903), (2908, 2909), (2911, 2915), (2918, 2927), (2929, 2929), (2946, 2947), (2949, 2954),
      (2958, 2960), (2962, 2965), (2969, 2970), (2972, 2972), (2974, 2975), (2979, 2980), (2984,
      2986), (2990, 3001), (3006, 3010), (3014, 3016), (3018, 3021), (3024, 3024), (3031, 3031),
      (3046, 3055), (3072, 3084), (3086, 3088), (3090, 3112), (3114, 3129), (3132, 3140), (3142,
      3144), (3146, 3149), (3157, 3158), (3160, 3162), (3165, 3165), (3168, 3171), (3174, 3183),
      (3200, 3203), (3205, 3212), (3214, 3216), (3218, 3240), (3242, 3251), (3253, 3257), (3260,
      3268), (3270, 3272), (3274, 3277), (3285, 3286), (3293, 3294), (3296, 3299), (3302, 3311),
      (3313, 3315), (3328, 3340), (3342, 3344), (3346, 3396), (3398, 3400), (3402, 3406), (3412,
      3415), (3423, 3427), (3430, 3439), (3450, 3455), (3457, 3459), (3461, 3478), (3482, 3505),
      (3507, 3515), (3517, 3517), (3520, 3526), (3530, 3530), (3535, 3540), (3542, 3542), (3544,
      3551), (3558, 3567), (3570, 3571), (3585, 3642), (3648, 3662), (3664, 3673), (3713, 3714),
      (3716, 3716), (3718, 3722), (3724, 3747), (3749, 3749), (3751, 3773), (3776, 3780), (3782,
      3782), (3784, 3790), (3792, 3801), (3804, 3807), (3840, 3840), (3864, 3865), (3872, 3881),
      (3893, 3893), (3895, 3895), (3897, 3897), (3902, 3911), (3913, 3948), (3953, 3972), (3974,
      3991), (3993, 4028), (4038, 4038), (4096, 4169), (4176, 4253), (4256, 4293), (4295, 4295),
      (4301, 4301), (4304, 4346), (4348, 4680), (4682, 4685), (4688, 4694), (4696, 4696), (4698,
      4701), (4704, 4744), (4746, 4749), (4752, 4784), (4786, 4789), (4792, 4798), (4800, 4800),
      (4802, 4805), (4808, 4822), (4824, 4880), (4882, 4885), (4888, 4954), (4957, 4959), (4969,
      4977), (4992, 5007), (5024, 5109), (5112, 5117), (5121, 5740), (5743, 5759), (5761, 5786),
      (5792, 5866), (5870, 5880), (5888, 5909), (5919, 5940), (5952, 5971), (5984, 5996), (5998,
      6000), (6002, 6003), (6016, 6099), (6103, 6103), (6108, 6109), (6112, 6121), (6155, 6157),
      (6159, 6169), (6176, 6264), (6272, 6314), (6320, 6389), (6400, 6430), (6432, 6443), (6448,
      6459), (6470, 6509), (6512, 6516), (6528, 6571), (6576, 6601), (6608, 6618), (6656, 6683),
      (6688, 6750), (6752, 6780), (6783, 6793), (6800, 6809), (6823, 6823), (6832, 6845), (6847,
      6862), (6912, 6988), (6992, 7001), (7019, 7027), (7040, 7155), (7168, 7223), (7232, 7241),
      (7245, 7293), (7296, 7306), (7312, 7354), (7357, 7359), (7376, 7378), (7380, 7418), (7424,
      7957), (7960, 7965), (7968, 8005), (8008, 8013), (8016, 8023), (8025, 8025), (8027, 8027),
      (8029, 8029), (8031, 8061), (8064, 8116), (8118, 8124), (8126, 8126), (8130, 8132), (8134,
      8140), (8144, 8147), (8150, 8155), (8160, 8172), (8178, 8180), (8182, 8188), (8204, 8205),
      (8255, 8256), (8276, 8276), (8305, 8305), (8319, 8319), (8336, 8348), (8400, 8412), (8417,
      8417), (8421, 8432), (8450, 8450), (8455, 8455), (8458, 8467), (8469, 8469), (8472, 8477),
      (8484, 8484), (8486, 8486), (8488, 8488), (8490, 8505), (8508, 8511), (8517, 8521), (8526,
      8526), (8544, 8584), (11264, 11492), (11499, 11507), (11520, 11557), (11559, 11559),
      (11565, 11565), (11568, 11623), (11631, 11631), (11647, 11670), (11680, 11686), (11688,
      11694), (11696, 11702), (11704, 11710), (11712, 11718), (11720, 11726), (11728, 11734),
      (11736, 11742), (11744, 11775), (12293, 12295), (12321, 12335), (12337, 12341), (12344,
      12348), (12353, 12438), (12441, 12442), (12445, 12447), (12449, 12543), (12549, 12591),
      (12593, 12686), (12704, 12735), (12784, 12799), (13312, 19903), (19968, 42124), (42192,
      42237), (42240, 42508), (42512, 42539), (42560, 42607), (42612, 42621), (42623, 42737),
      (42775, 42783), (42786, 42888), (42891, 42957), (42960, 42961), (42963, 42963), (42965,
      42972), (42994, 43047), (43052, 43052), (43072, 43123), (43136, 43205), (43216, 43225),
      (43232, 43255), (43259, 43259), (43261, 43309), (43312, 43347), (43360, 43388), (43392,
      43456), (43471, 43481), (43488, 43518), (43520, 43574), (43584, 43597), (43600, 43609),
      (43616, 43638), (43642, 43714), (43739, 43741), (43744, 43759), (43762, 43766), (43777,
      43782), (43785, 43790), (43793, 43798), (43808, 43814), (43816, 43822), (43824, 43866),
      (43868, 43881), (43888, 44010), (44012, 44013), (44016, 44025), (44032, 55203), (55216,
      55238), (55243, 55291), (63744, 64109), (64112, 64217), (64256, 64262), (64275, 64279),
      (64285, 64296), (64298, 64310), (64312, 64316), (64318, 64318), (64320, 64321), (64323,
      64324), (64326, 64433), (64467, 64605), (64612, 64829), (64848, 64911), (64914, 64967),
      (65008, 65017), (65024, 65039), (65056, 65071), (65075, 65076), (65101, 65103), (65137,
      65137), (65139, 65139), (65143, 65143), (65145, 65145), (65147, 65147), (65149, 65149),
      (65151, 65276), (65296, 65305), (65313, 65338), (65343, 65343), (65345, 65370), (65381,
      65470), (65474, 65479), (65482, 65487), (65490, 65495), (65498, 65500), (65536, 65547),
      (65549, 65574), (65576, 65594), (65596, 65597), (65599, 65613), (65616, 65629), (65664,
      65786), (65856, 65908), (66045, 66045), (66176, 66204), (66208, 66256), (66272, 66272),
      (66304, 66335), (66349, 66378), (66384, 66426), (66432, 66461), (66464, 66499), (66504,
      66511), (66513, 66517), (66560, 66717), (66720, 66729), (66736, 66771), (66776, 66811),
      (66816, 66855), (66864, 66915), (66928, 66938), (66940, 66954), (66956, 66962), (66964,
      66965), (66967, 66977), (66979, 66993), (66995, 67001), (67003, 67004), (67008, 67059),
      (67072, 67382), (67392, 67413), (67424, 67431), (67456, 67461), (67463, 67504), (67506,
      67514), (67584, 67589), (67592, 67592), (67594, 67637), (67639, 67640), (67644, 67644),
      (67647, 67669), (67680, 67702), (67712, 67742), (67808, 67826), (67828, 67829), (67840,
      67861), (67872, 67897), (67968, 68023), (68030, 68031), (68096, 68099), (68101, 68102),
      (68108, 68115), (68117, 68119), (68121, 68149), (68152, 68154), (68159, 68159), (68192,
      68220), (68224, 68252), (68288, 68295), (68297, 68326), (68352, 68405), (68416, 68437),
      (68448, 68466), (68480, 68497), (68608, 68680), (68736, 68786), (68800, 68850), (68864,
      68903), (68912, 68921), (68928, 68965), (68969, 68973), (68975, 68997), (69248, 69289),
      (69291, 69292), (69296, 69297), (69314, 69316), (69372, 69404), (69415, 69415), (69424,
      69456), (69488, 69509), (69552, 69572), (69600, 69622), (69632, 69702), (69734, 69749),
      (69759, 69818), (69826, 69826), (69840, 69864), (69872, 69881), (69888, 69940), (69942,
      69951), (69956, 69959), (69968, 70003), (70006, 70006), (70016, 70084), (70089, 70092),
      (70094, 70106), (70108, 70108), (70144, 70161), (70163, 70199), (70206, 70209), (70272,
      70278), (70280, 70280), (70282, 70285), (70287, 70301), (70303, 70312), (70320, 70378),
      (70384, 70393), (70400, 70403), (70405, 70412), (70415, 70416), (70419, 70440), (70442,
      70448), (70450, 70451), (70453, 70457), (70459, 70468), (70471, 70472), (70475, 70477),
      (70480, 70480), (70487, 70487), (70493, 70499), (70502, 70508), (70512, 70516), (70528,
      70537), (70539, 70539), (70542, 70542), (70544, 70581), (70583, 70592), (70594, 70594),
      (70597, 70597), (70599, 70602), (70604, 70611), (70625, 70626), (70656, 70730), (70736,
      70745), (70750, 70753), (70784, 70853), (70855, 70855), (70864, 70873), (71040, 71093),
      (71096, 71104), (71128, 71133), (71168, 71232), (71236, 71236), (71248, 71257), (71296,
      71352), (71360, 71369), (71376, 71395), (71424, 71450), (71453, 71467), (71472, 71481),
      (71488, 71494), (71680, 71738), (71840, 71913), (71935, 71942), (71945, 71945), (71948,
      71955), (71957, 71958), (71960, 71989), (71991, 71992), (71995, 72003), (72016, 72025),
      (72096, 72103), (72106, 72151), (72154, 72161), (72163, 72164), (72192, 72254), (72263,
      72263), (72272, 72345), (72349, 72349), (72368, 72440), (72640, 72672), (72688, 72697),
      (72704, 72712), (72714, 72758), (72760, 72768), (72784, 72793), (72818, 72847), (72850,
      72871), (72873, 72886), (72960, 72966), (72968, 72969), (72971, 73014), (73018, 73018),
      (73020, 73021), (73023, 73031), (73040, 73049), (73056, 73061), (73063, 73064), (73066,
      73102), (73104, 73105), (73107, 73112), (73120, 73129), (73440, 73462), (73472, 73488),
      (73490, 73530), (73534, 73538), (73552, 73562), (73648, 73648), (73728, 74649), (74752,
      74862), (74880, 75075), (77712, 77808), (77824, 78895), (78912, 78933), (78944, 82938),
      (82944, 83526), (90368, 90425), (92160, 92728), (92736, 92766), (92768, 92777), (92784,
      92862), (92864, 92873), (92880, 92909), (92912, 92916), (92928, 92982), (92992, 92995),
      (93008, 93017), (93027, 93047), (93053, 93071), (93504, 93548), (93552, 93561), (93760,
      93823), (93952, 94026), (94031, 94087), (94095, 94111), (94176, 94177), (94179, 94180),
      (94192, 94193), (94208, 100343), (100352, 101589), (101631, 101640), (110576, 110579),
      (110581, 110587), (110589, 110590), (110592, 110882), (110898, 110898), (110928, 110930),
      (110933, 110933), (110948, 110951), (110960, 111355), (113664, 113770), (113776, 113788),
      (113792, 113800), (113808, 113817), (113821, 113822), (118000, 118009), (118528, 118573),
      (118576, 118598), (119141, 119145), (119149, 119154), (119163, 119170), (119173, 119179),
      (119210, 119213), (119362, 119364), (119808, 119892), (119894, 119964), (119966, 119967),
      (119970, 119970), (119973, 119974), (119977, 119980), (119982, 119993), (119995, 119995),
      (119997, 120003), (120005, 120069), (120071, 120074), (120077, 120084), (120086, 120092),
      (120094, 120121), (120123, 120126), (120128, 120132), (120134, 120134), (120138, 120144),
      (120146, 120485), (120488, 120512), (120514, 120538), (120540, 120570), (120572, 120596),
      (120598, 120628), (120630, 120654), (120656, 120686), (120688, 120712), (120714, 120744),
      (120746, 120770), (120772, 120779), (120782, 120831), (121344, 121398), (121403, 121452),
      (121461, 121461), (121476, 121476), (121499, 121503), (121505, 121519), (122624, 122654),
      (122661, 122666), (122880, 122886), (122888, 122904), (122907, 122913), (122915, 122916),
      (122918, 122922), (122928, 122989), (123023, 123023), (123136, 123180), (123184, 123197),
      (123200, 123209), (123214, 123214), (123536, 123566), (123584, 123641), (124112, 124153),
      (124368, 124410), (124896, 124902), (124904, 124907), (124909, 124910), (124912, 124926),
      (124928, 125124), (125136, 125142), (125184, 125259), (125264, 125273), (126464, 126467),
      (126469, 126495), (126497, 126498), (126500, 126500), (126503, 126503), (126505, 126514),
      (126516, 126519), (126521, 126521), (126523, 126523), (126530, 126530), (126535, 126535),
      (126537, 126537), (126539, 126539), (126541, 126543), (126545, 126546), (126548, 126548),
      (126551, 126551), (126553, 126553), (126555, 126555), (126557, 126557), (126559, 126559),
      (126561, 126562), (126564, 126564), (126567, 126570), (126572, 126578), (126580, 126583),
      (126585, 126588), (126590, 126590), (126592, 126601), (126603, 126619), (126625, 126627),
      (126629, 126633), (126635, 126651), (130032, 130041), (131072, 173791), (173824, 177977),
      (177984, 178205), (178208, 183969), (183984, 191456), (191472, 192093), (194560, 195101),
      (196608, 201546), (201552, 205743), (917760, 917999)]"

abbreviation mozcpp_in_identifier :: "codepoint \<Rightarrow> bool" where
  "mozcpp_in_identifier la \<equiv> set_contains mozcpp_sym_identifier_character_set_2 802 la = Some True"

lemma mozcpp_starts_identifier_iff:
  "mozcpp_starts_identifier c \<longleftrightarrow> (\<exists>r\<in>set mozcpp_sym_identifier_character_set_1. in_range r c)"
proof -
  let ?R = mozcpp_sym_identifier_character_set_1
  have "ranges_sorted ?R" "?R \<noteq> []" "length ?R = 687"
    by (simp_all add: ranges_sorted_steps mozcpp_sym_identifier_character_set_1_def)
  then show ?thesis using set_contains_mem [of ?R c] by simp
qed

lemma mozcpp_in_identifier_iff:
  "mozcpp_in_identifier c \<longleftrightarrow> (\<exists>r\<in>set mozcpp_sym_identifier_character_set_2. in_range r c)"
proof -
  let ?R = mozcpp_sym_identifier_character_set_2
  have "ranges_sorted ?R" "?R \<noteq> []" "length ?R = 802"
    by (simp_all add: ranges_sorted_steps mozcpp_sym_identifier_character_set_2_def)
  then show ?thesis using set_contains_mem [of ?R c] by simp
qed

lemma mozcpp_sets_nul [simp]:
  "set_contains mozcpp_sym_identifier_character_set_1 687 0 \<noteq> Some True"
  "set_contains mozcpp_sym_identifier_character_set_2 802 0 \<noteq> Some True"
proof -
  have "list_all (\<lambda>r. 0 < range_start r) mozcpp_sym_identifier_character_set_1"
    "list_all (\<lambda>r. 0 < range_start r) mozcpp_sym_identifier_character_set_2"
    unfolding mozcpp_sym_identifier_character_set_1_def mozcpp_sym_identifier_character_set_2_def
      list.pred_map o_def list.pred_inject prod.case TSCharacterRange.simps by simp_all
  then show "\<not> mozcpp_starts_identifier 0" "\<not> mozcpp_in_identifier 0"
    unfolding mozcpp_starts_identifier_iff mozcpp_in_identifier_iff by (auto simp: list_all_iff in_range_def)
qed

section \<open>The cases of the switch\<close>

definition mozcpp_lex_0 :: "bool \<Rightarrow> codepoint \<Rightarrow> lex_case" where
  "mozcpp_lex_0 eof la = (None,
      if eof then ADVANCE 345 else
      case ADVANCE_MAP [(CH_BANG, 412), (CH_DQUOTE, 543), (CH_HASH, 290), (CH_PERCENT, 436),
        (CH_AMP, 446), (CH_QUOTE, 534), (CH_LPAREN, 349), (CH_RPAREN, 352), (CH_STAR, 432),
        (CH_PLUS, 426), (CH_COMMA, 351), (CH_MINUS, 415), (CH_DOT, 508), (CH_SLASH, 434), (CH_0,
        516), (CH_COLON, 492), (CH_SEMICOLON, 464), (CH_LT, 456), (CH_EQUALS, 476), (CH_GT,
        1162), (CH_QMARK, 493), (CH_A, 1005), (CH_B, 985), (CH_C, 862), (CH_D, 1066), (CH_F,
        835), (CH_H, 830), (CH_I, 961), (CH_L, 794), (CH_P, 854), (CH_Q, 1067), (CH_R, 799),
        (CH_S, 867), (CH_T, 855), (CH_U, 800), (CH_V, 992), (CH_W, 865), (CH_LBRACKET, 472),
        (CH_BACKSLASH, 2), (CH_RBRACKET, 474), (CH_CARET, 443), (CH_b, 1132), (CH_c, 1109),
        (CH_d, 1127), (CH_f, 1084), (CH_i, 1124), (CH_m, 1086), (CH_p, 1143), (CH_s, 1111),
        (CH_t, 1135), (CH_u, 805), (CH_v, 1130), (CH_w, 1096), (CH_LBRACE, 468), (CH_BAR, 440),
        (CH_RBRACE, 469), (CH_TILDE, 413)] la of Some st \<Rightarrow> ADVANCE st | None
        \<Rightarrow> (
      if (CH_TAB \<le> la \<and> la \<le> CH_CR) \<or> la = CH_SPACE then SKIP 343 else
      if CH_1 \<le> la \<and> la \<le> CH_9 then ADVANCE 519 else
      if mozcpp_starts_identifier la then ADVANCE 1152 else END_STATE))"

definition mozcpp_lex_1 :: "bool \<Rightarrow> codepoint \<Rightarrow> lex_case" where
  "mozcpp_lex_1 eof la = (None,
      if la = CH_LF then SKIP 166 else END_STATE)"

definition mozcpp_lex_2 :: "bool \<Rightarrow> codepoint \<Rightarrow> lex_case" where
  "mozcpp_lex_2 eof la = (None,
      if la = CH_LF then SKIP 166 else
      if la = CH_CR then SKIP 1 else
      if la = CH_U then ADVANCE 339 else
      if la = CH_u then ADVANCE 331 else END_STATE)"

definition mozcpp_lex_3 :: "bool \<Rightarrow> codepoint \<Rightarrow> lex_case" where
  "mozcpp_lex_3 eof la = (None,
      if la = CH_LF then SKIP 175 else END_STATE)"

definition mozcpp_lex_4 :: "bool \<Rightarrow> codepoint \<Rightarrow> lex_case" where
  "mozcpp_lex_4 eof la = (None,
      if la = CH_LF then SKIP 175 else
      if la = CH_CR then SKIP 3 else
      if la = CH_U then ADVANCE 339 else
      if la = CH_u then ADVANCE 331 else END_STATE)"

definition mozcpp_lex_5 :: "bool \<Rightarrow> codepoint \<Rightarrow> lex_case" where
  "mozcpp_lex_5 eof la = (None,
      if la = CH_LF then ADVANCE 1183 else
      if (CH_TAB \<le> la \<and> la \<le> CH_CR) \<or> la = CH_SPACE then ADVANCE 5 else
        END_STATE)"

definition mozcpp_lex_6 :: "bool \<Rightarrow> codepoint \<Rightarrow> lex_case" where
  "mozcpp_lex_6 eof la = (None,
      if la = CH_LF then SKIP 176 else END_STATE)"

definition mozcpp_lex_7 :: "bool \<Rightarrow> codepoint \<Rightarrow> lex_case" where
  "mozcpp_lex_7 eof la = (None,
      if la = CH_LF then SKIP 176 else
      if la = CH_CR then SKIP 6 else
      if la = CH_U then ADVANCE 339 else
      if la = CH_u then ADVANCE 331 else END_STATE)"

definition mozcpp_lex_8 :: "bool \<Rightarrow> codepoint \<Rightarrow> lex_case" where
  "mozcpp_lex_8 eof la = (None,
      if la = CH_LF then SKIP 174 else END_STATE)"

definition mozcpp_lex_9 :: "bool \<Rightarrow> codepoint \<Rightarrow> lex_case" where
  "mozcpp_lex_9 eof la = (None,
      if la = CH_LF then SKIP 174 else
      if la = CH_CR then SKIP 8 else
      if la = CH_U then ADVANCE 339 else
      if la = CH_u then ADVANCE 331 else END_STATE)"

definition mozcpp_lex_10 :: "bool \<Rightarrow> codepoint \<Rightarrow> lex_case" where
  "mozcpp_lex_10 eof la = (None,
      if la = CH_LF then SKIP 178 else END_STATE)"

definition mozcpp_lex_11 :: "bool \<Rightarrow> codepoint \<Rightarrow> lex_case" where
  "mozcpp_lex_11 eof la = (None,
      if la = CH_LF then SKIP 178 else
      if la = CH_CR then SKIP 10 else
      if la = CH_U then ADVANCE 339 else
      if la = CH_u then ADVANCE 331 else END_STATE)"

definition mozcpp_lex_12 :: "bool \<Rightarrow> codepoint \<Rightarrow> lex_case" where
  "mozcpp_lex_12 eof la = (None,
      if la = CH_LF then SKIP 177 else END_STATE)"

definition mozcpp_lex_13 :: "bool \<Rightarrow> codepoint \<Rightarrow> lex_case" where
  "mozcpp_lex_13 eof la = (None,
      if la = CH_LF then SKIP 177 else
      if la = CH_CR then SKIP 12 else
      if la = CH_U then ADVANCE 339 else
      if la = CH_u then ADVANCE 331 else END_STATE)"

definition mozcpp_lex_14 :: "bool \<Rightarrow> codepoint \<Rightarrow> lex_case" where
  "mozcpp_lex_14 eof la = (None,
      if la = CH_LF then SKIP 242 else END_STATE)"

definition mozcpp_lex_15 :: "bool \<Rightarrow> codepoint \<Rightarrow> lex_case" where
  "mozcpp_lex_15 eof la = (None,
      if la = CH_LF then SKIP 242 else
      if la = CH_CR then SKIP 14 else
      if la = CH_U then ADVANCE 339 else
      if la = CH_u then ADVANCE 331 else END_STATE)"

definition mozcpp_lex_16 :: "bool \<Rightarrow> codepoint \<Rightarrow> lex_case" where
  "mozcpp_lex_16 eof la = (None,
      if la = CH_LF then SKIP 198 else END_STATE)"

definition mozcpp_lex_17 :: "bool \<Rightarrow> codepoint \<Rightarrow> lex_case" where
  "mozcpp_lex_17 eof la = (None,
      if la = CH_LF then SKIP 198 else
      if la = CH_CR then SKIP 16 else
      if la = CH_U then ADVANCE 339 else
      if la = CH_u then ADVANCE 331 else END_STATE)"

definition mozcpp_lex_18 :: "bool \<Rightarrow> codepoint \<Rightarrow> lex_case" where
  "mozcpp_lex_18 eof la = (None,
      if la = CH_LF then SKIP 243 else END_STATE)"

definition mozcpp_lex_19 :: "bool \<Rightarrow> codepoint \<Rightarrow> lex_case" where
  "mozcpp_lex_19 eof la = (None,
      if la = CH_LF then SKIP 243 else
      if la = CH_CR then SKIP 18 else
      if la = CH_U then ADVANCE 339 else
      if la = CH_u then ADVANCE 331 else END_STATE)"

definition mozcpp_lex_20 :: "bool \<Rightarrow> codepoint \<Rightarrow> lex_case" where
  "mozcpp_lex_20 eof la = (None,
      if la = CH_LF then SKIP 172 else END_STATE)"

definition mozcpp_lex_21 :: "bool \<Rightarrow> codepoint \<Rightarrow> lex_case" where
  "mozcpp_lex_21 eof la = (None,
      if la = CH_LF then SKIP 172 else
      if la = CH_CR then SKIP 20 else
      if la = CH_U then ADVANCE 339 else
      if la = CH_u then ADVANCE 331 else END_STATE)"

definition mozcpp_lex_22 :: "bool \<Rightarrow> codepoint \<Rightarrow> lex_case" where
  "mozcpp_lex_22 eof la = (None,
      if la = CH_LF then SKIP 191 else END_STATE)"

definition mozcpp_lex_23 :: "bool \<Rightarrow> codepoint \<Rightarrow> lex_case" where
  "mozcpp_lex_23 eof la = (None,
      if la = CH_LF then SKIP 191 else
      if la = CH_CR then SKIP 22 else
      if la = CH_U then ADVANCE 339 else
      if la = CH_u then ADVANCE 331 else END_STATE)"

definition mozcpp_lex_24 :: "bool \<Rightarrow> codepoint \<Rightarrow> lex_case" where
  "mozcpp_lex_24 eof la = (None,
      if la = CH_LF then SKIP 179 else END_STATE)"

definition mozcpp_lex_25 :: "bool \<Rightarrow> codepoint \<Rightarrow> lex_case" where
  "mozcpp_lex_25 eof la = (None,
      if la = CH_LF then SKIP 179 else
      if la = CH_CR then SKIP 24 else
      if la = CH_U then ADVANCE 339 else
      if la = CH_u then ADVANCE 331 else END_STATE)"

definition mozcpp_lex_26 :: "bool \<Rightarrow> codepoint \<Rightarrow> lex_case" where
  "mozcpp_lex_26 eof la = (None,
      if la = CH_LF then SKIP 187 else END_STATE)"

definition mozcpp_lex_27 :: "bool \<Rightarrow> codepoint \<Rightarrow> lex_case" where
  "mozcpp_lex_27 eof la = (None,
      if la = CH_LF then SKIP 187 else
      if la = CH_CR then SKIP 26 else
      if la = CH_U then ADVANCE 339 else
      if la = CH_u then ADVANCE 331 else END_STATE)"

definition mozcpp_lex_28 :: "bool \<Rightarrow> codepoint \<Rightarrow> lex_case" where
  "mozcpp_lex_28 eof la = (None,
      if la = CH_LF then SKIP 199 else END_STATE)"

definition mozcpp_lex_29 :: "bool \<Rightarrow> codepoint \<Rightarrow> lex_case" where
  "mozcpp_lex_29 eof la = (None,
      if la = CH_LF then SKIP 199 else
      if la = CH_CR then SKIP 28 else
      if la = CH_U then ADVANCE 339 else
      if la = CH_u then ADVANCE 331 else END_STATE)"

definition mozcpp_lex_30 :: "bool \<Rightarrow> codepoint \<Rightarrow> lex_case" where
  "mozcpp_lex_30 eof la = (None,
      if la = CH_LF then SKIP 180 else END_STATE)"

definition mozcpp_lex_31 :: "bool \<Rightarrow> codepoint \<Rightarrow> lex_case" where
  "mozcpp_lex_31 eof la = (None,
      if la = CH_LF then SKIP 180 else
      if la = CH_CR then SKIP 30 else
      if la = CH_U then ADVANCE 339 else
      if la = CH_u then ADVANCE 331 else END_STATE)"

definition mozcpp_lex_32 :: "bool \<Rightarrow> codepoint \<Rightarrow> lex_case" where
  "mozcpp_lex_32 eof la = (None,
      if la = CH_LF then SKIP 169 else END_STATE)"

definition mozcpp_lex_33 :: "bool \<Rightarrow> codepoint \<Rightarrow> lex_case" where
  "mozcpp_lex_33 eof la = (None,
      if la = CH_LF then SKIP 169 else
      if la = CH_CR then SKIP 32 else
      if la = CH_U then ADVANCE 339 else
      if la = CH_u then ADVANCE 331 else END_STATE)"

definition mozcpp_lex_34 :: "bool \<Rightarrow> codepoint \<Rightarrow> lex_case" where
  "mozcpp_lex_34 eof la = (None,
      if la = CH_LF then SKIP 197 else END_STATE)"

definition mozcpp_lex_35 :: "bool \<Rightarrow> codepoint \<Rightarrow> lex_case" where
  "mozcpp_lex_35 eof la = (None,
      if la = CH_LF then SKIP 197 else
      if la = CH_CR then SKIP 34 else
      if la = CH_U then ADVANCE 339 else
      if la = CH_u then ADVANCE 331 else END_STATE)"

definition mozcpp_lex_36 :: "bool \<Rightarrow> codepoint \<Rightarrow> lex_case" where
  "mozcpp_lex_36 eof la = (None,
      if la = CH_LF then SKIP 170 else END_STATE)"

definition mozcpp_lex_37 :: "bool \<Rightarrow> codepoint \<Rightarrow> lex_case" where
  "mozcpp_lex_37 eof la = (None,
      if la = CH_LF then SKIP 170 else
      if la = CH_CR then SKIP 36 else
      if la = CH_U then ADVANCE 339 else
      if la = CH_u then ADVANCE 331 else END_STATE)"

definition mozcpp_lex_38 :: "bool \<Rightarrow> codepoint \<Rightarrow> lex_case" where
  "mozcpp_lex_38 eof la = (None,
      if la = CH_LF then SKIP 228 else END_STATE)"

definition mozcpp_lex_39 :: "bool \<Rightarrow> codepoint \<Rightarrow> lex_case" where
  "mozcpp_lex_39 eof la = (None,
      if la = CH_LF then SKIP 228 else
      if la = CH_CR then SKIP 38 else
      if la = CH_U then ADVANCE 339 else
      if la = CH_u then ADVANCE 331 else END_STATE)"

definition mozcpp_lex_40 :: "bool \<Rightarrow> codepoint \<Rightarrow> lex_case" where
  "mozcpp_lex_40 eof la = (None,
      if la = CH_LF then SKIP 241 else END_STATE)"

definition mozcpp_lex_41 :: "bool \<Rightarrow> codepoint \<Rightarrow> lex_case" where
  "mozcpp_lex_41 eof la = (None,
      if la = CH_LF then SKIP 241 else
      if la = CH_CR then SKIP 40 else
      if la = CH_U then ADVANCE 339 else
      if la = CH_u then ADVANCE 331 else END_STATE)"

definition mozcpp_lex_42 :: "bool \<Rightarrow> codepoint \<Rightarrow> lex_case" where
  "mozcpp_lex_42 eof la = (None,
      if la = CH_LF then SKIP 202 else END_STATE)"

definition mozcpp_lex_43 :: "bool \<Rightarrow> codepoint \<Rightarrow> lex_case" where
  "mozcpp_lex_43 eof la = (None,
      if la = CH_LF then SKIP 202 else
      if la = CH_CR then SKIP 42 else
      if la = CH_U then ADVANCE 339 else
      if la = CH_u then ADVANCE 331 else END_STATE)"

definition mozcpp_lex_44 :: "bool \<Rightarrow> codepoint \<Rightarrow> lex_case" where
  "mozcpp_lex_44 eof la = (None,
      if la = CH_LF then SKIP 236 else END_STATE)"

definition mozcpp_lex_45 :: "bool \<Rightarrow> codepoint \<Rightarrow> lex_case" where
  "mozcpp_lex_45 eof la = (None,
      if la = CH_LF then SKIP 236 else
      if la = CH_CR then SKIP 44 else
      if la = CH_U then ADVANCE 339 else
      if la = CH_u then ADVANCE 331 else END_STATE)"

definition mozcpp_lex_46 :: "bool \<Rightarrow> codepoint \<Rightarrow> lex_case" where
  "mozcpp_lex_46 eof la = (None,
      if la = CH_LF then SKIP 246 else END_STATE)"

definition mozcpp_lex_47 :: "bool \<Rightarrow> codepoint \<Rightarrow> lex_case" where
  "mozcpp_lex_47 eof la = (None,
      if la = CH_LF then SKIP 246 else
      if la = CH_CR then SKIP 46 else
      if la = CH_U then ADVANCE 339 else
      if la = CH_u then ADVANCE 331 else END_STATE)"

definition mozcpp_lex_48 :: "bool \<Rightarrow> codepoint \<Rightarrow> lex_case" where
  "mozcpp_lex_48 eof la = (None,
      if la = CH_LF then SKIP 245 else END_STATE)"

definition mozcpp_lex_49 :: "bool \<Rightarrow> codepoint \<Rightarrow> lex_case" where
  "mozcpp_lex_49 eof la = (None,
      if la = CH_LF then SKIP 245 else
      if la = CH_CR then SKIP 48 else
      if la = CH_U then ADVANCE 339 else
      if la = CH_u then ADVANCE 331 else END_STATE)"

definition mozcpp_lex_50 :: "bool \<Rightarrow> codepoint \<Rightarrow> lex_case" where
  "mozcpp_lex_50 eof la = (None,
      if la = CH_LF then SKIP 223 else END_STATE)"

definition mozcpp_lex_51 :: "bool \<Rightarrow> codepoint \<Rightarrow> lex_case" where
  "mozcpp_lex_51 eof la = (None,
      if la = CH_LF then SKIP 223 else
      if la = CH_CR then SKIP 50 else
      if la = CH_U then ADVANCE 339 else
      if la = CH_u then ADVANCE 331 else END_STATE)"

definition mozcpp_lex_52 :: "bool \<Rightarrow> codepoint \<Rightarrow> lex_case" where
  "mozcpp_lex_52 eof la = (None,
      if la = CH_LF then SKIP 188 else END_STATE)"

definition mozcpp_lex_53 :: "bool \<Rightarrow> codepoint \<Rightarrow> lex_case" where
  "mozcpp_lex_53 eof la = (None,
      if la = CH_LF then SKIP 188 else
      if la = CH_CR then SKIP 52 else
      if la = CH_U then ADVANCE 339 else
      if la = CH_u then ADVANCE 331 else END_STATE)"

definition mozcpp_lex_54 :: "bool \<Rightarrow> codepoint \<Rightarrow> lex_case" where
  "mozcpp_lex_54 eof la = (None,
      if la = CH_LF then SKIP 201 else END_STATE)"

definition mozcpp_lex_55 :: "bool \<Rightarrow> codepoint \<Rightarrow> lex_case" where
  "mozcpp_lex_55 eof la = (None,
      if la = CH_LF then SKIP 201 else
      if la = CH_CR then SKIP 54 else
      if la = CH_U then ADVANCE 339 else
      if la = CH_u then ADVANCE 331 else END_STATE)"

definition mozcpp_lex_56 :: "bool \<Rightarrow> codepoint \<Rightarrow> lex_case" where
  "mozcpp_lex_56 eof la = (None,
      if la = CH_LF then SKIP 192 else END_STATE)"

definition mozcpp_lex_57 :: "bool \<Rightarrow> codepoint \<Rightarrow> lex_case" where
  "mozcpp_lex_57 eof la = (None,
      if la = CH_LF then SKIP 192 else
      if la = CH_CR then SKIP 56 else
      if la = CH_U then ADVANCE 339 else
      if la = CH_u then ADVANCE 331 else END_STATE)"

definition mozcpp_lex_58 :: "bool \<Rightarrow> codepoint \<Rightarrow> lex_case" where
  "mozcpp_lex_58 eof la = (None,
      if la = CH_LF then SKIP 182 else END_STATE)"

definition mozcpp_lex_59 :: "bool \<Rightarrow> codepoint \<Rightarrow> lex_case" where
  "mozcpp_lex_59 eof la = (None,
      if la = CH_LF then SKIP 182 else
      if la = CH_CR then SKIP 58 else
      if la = CH_U then ADVANCE 339 else
      if la = CH_u then ADVANCE 331 else END_STATE)"

definition mozcpp_lex_60 :: "bool \<Rightarrow> codepoint \<Rightarrow> lex_case" where
  "mozcpp_lex_60 eof la = (None,
      if la = CH_LF then SKIP 214 else END_STATE)"

definition mozcpp_lex_61 :: "bool \<Rightarrow> codepoint \<Rightarrow> lex_case" where
  "mozcpp_lex_61 eof la = (None,
      if la = CH_LF then SKIP 214 else
      if la = CH_CR then SKIP 60 else
      if la = CH_U then ADVANCE 339 else
      if la = CH_u then ADVANCE 331 else END_STATE)"

definition mozcpp_lex_62 :: "bool \<Rightarrow> codepoint \<Rightarrow> lex_case" where
  "mozcpp_lex_62 eof la = (None,
      if la = CH_LF then SKIP 222 else END_STATE)"

definition mozcpp_lex_63 :: "bool \<Rightarrow> codepoint \<Rightarrow> lex_case" where
  "mozcpp_lex_63 eof la = (None,
      if la = CH_LF then SKIP 222 else
      if la = CH_CR then SKIP 62 else
      if la = CH_U then ADVANCE 339 else
      if la = CH_u then ADVANCE 331 else END_STATE)"

definition mozcpp_lex_64 :: "bool \<Rightarrow> codepoint \<Rightarrow> lex_case" where
  "mozcpp_lex_64 eof la = (None,
      if la = CH_LF then SKIP 212 else END_STATE)"

definition mozcpp_lex_65 :: "bool \<Rightarrow> codepoint \<Rightarrow> lex_case" where
  "mozcpp_lex_65 eof la = (None,
      if la = CH_LF then SKIP 212 else
      if la = CH_CR then SKIP 64 else
      if la = CH_U then ADVANCE 339 else
      if la = CH_u then ADVANCE 331 else END_STATE)"

definition mozcpp_lex_66 :: "bool \<Rightarrow> codepoint \<Rightarrow> lex_case" where
  "mozcpp_lex_66 eof la = (None,
      if la = CH_LF then SKIP 219 else END_STATE)"

definition mozcpp_lex_67 :: "bool \<Rightarrow> codepoint \<Rightarrow> lex_case" where
  "mozcpp_lex_67 eof la = (None,
      if la = CH_LF then SKIP 219 else
      if la = CH_CR then SKIP 66 else
      if la = CH_U then ADVANCE 339 else
      if la = CH_u then ADVANCE 331 else END_STATE)"

definition mozcpp_lex_68 :: "bool \<Rightarrow> codepoint \<Rightarrow> lex_case" where
  "mozcpp_lex_68 eof la = (None,
      if la = CH_LF then SKIP 183 else END_STATE)"

definition mozcpp_lex_69 :: "bool \<Rightarrow> codepoint \<Rightarrow> lex_case" where
  "mozcpp_lex_69 eof la = (None,
      if la = CH_LF then SKIP 183 else
      if la = CH_CR then SKIP 68 else
      if la = CH_U then ADVANCE 339 else
      if la = CH_u then ADVANCE 331 else END_STATE)"

definition mozcpp_lex_70 :: "bool \<Rightarrow> codepoint \<Rightarrow> lex_case" where
  "mozcpp_lex_70 eof la = (None,
      if la = CH_LF then SKIP 229 else END_STATE)"

definition mozcpp_lex_71 :: "bool \<Rightarrow> codepoint \<Rightarrow> lex_case" where
  "mozcpp_lex_71 eof la = (None,
      if la = CH_LF then SKIP 229 else
      if la = CH_CR then SKIP 70 else
      if la = CH_U then ADVANCE 339 else
      if la = CH_u then ADVANCE 331 else END_STATE)"

definition mozcpp_lex_72 :: "bool \<Rightarrow> codepoint \<Rightarrow> lex_case" where
  "mozcpp_lex_72 eof la = (None,
      if la = CH_LF then SKIP 207 else END_STATE)"

definition mozcpp_lex_73 :: "bool \<Rightarrow> codepoint \<Rightarrow> lex_case" where
  "mozcpp_lex_73 eof la = (None,
      if la = CH_LF then SKIP 207 else
      if la = CH_CR then SKIP 72 else
      if la = CH_U then ADVANCE 339 else
      if la = CH_u then ADVANCE 331 else END_STATE)"

definition mozcpp_lex_74 :: "bool \<Rightarrow> codepoint \<Rightarrow> lex_case" where
  "mozcpp_lex_74 eof la = (None,
      if la = CH_LF then SKIP 244 else END_STATE)"

definition mozcpp_lex_75 :: "bool \<Rightarrow> codepoint \<Rightarrow> lex_case" where
  "mozcpp_lex_75 eof la = (None,
      if la = CH_LF then SKIP 244 else
      if la = CH_CR then SKIP 74 else
      if la = CH_U then ADVANCE 339 else
      if la = CH_u then ADVANCE 331 else END_STATE)"

definition mozcpp_lex_76 :: "bool \<Rightarrow> codepoint \<Rightarrow> lex_case" where
  "mozcpp_lex_76 eof la = (None,
      if la = CH_LF then SKIP 189 else END_STATE)"

definition mozcpp_lex_77 :: "bool \<Rightarrow> codepoint \<Rightarrow> lex_case" where
  "mozcpp_lex_77 eof la = (None,
      if la = CH_LF then SKIP 189 else
      if la = CH_CR then SKIP 76 else
      if la = CH_U then ADVANCE 339 else
      if la = CH_u then ADVANCE 331 else END_STATE)"

definition mozcpp_lex_78 :: "bool \<Rightarrow> codepoint \<Rightarrow> lex_case" where
  "mozcpp_lex_78 eof la = (None,
      if la = CH_LF then SKIP 193 else END_STATE)"

definition mozcpp_lex_79 :: "bool \<Rightarrow> codepoint \<Rightarrow> lex_case" where
  "mozcpp_lex_79 eof la = (None,
      if la = CH_LF then SKIP 193 else
      if la = CH_CR then SKIP 78 else
      if la = CH_U then ADVANCE 339 else
      if la = CH_u then ADVANCE 331 else END_STATE)"

definition mozcpp_lex_80 :: "bool \<Rightarrow> codepoint \<Rightarrow> lex_case" where
  "mozcpp_lex_80 eof la = (None,
      if la = CH_LF then SKIP 213 else END_STATE)"

definition mozcpp_lex_81 :: "bool \<Rightarrow> codepoint \<Rightarrow> lex_case" where
  "mozcpp_lex_81 eof la = (None,
      if la = CH_LF then SKIP 213 else
      if la = CH_CR then SKIP 80 else
      if la = CH_U then ADVANCE 339 else
      if la = CH_u then ADVANCE 331 else END_STATE)"

definition mozcpp_lex_82 :: "bool \<Rightarrow> codepoint \<Rightarrow> lex_case" where
  "mozcpp_lex_82 eof la = (None,
      if la = CH_LF then SKIP 206 else END_STATE)"

definition mozcpp_lex_83 :: "bool \<Rightarrow> codepoint \<Rightarrow> lex_case" where
  "mozcpp_lex_83 eof la = (None,
      if la = CH_LF then SKIP 206 else
      if la = CH_CR then SKIP 82 else
      if la = CH_U then ADVANCE 339 else
      if la = CH_u then ADVANCE 331 else END_STATE)"

definition mozcpp_lex_84 :: "bool \<Rightarrow> codepoint \<Rightarrow> lex_case" where
  "mozcpp_lex_84 eof la = (None,
      if la = CH_LF then SKIP 173 else END_STATE)"

definition mozcpp_lex_85 :: "bool \<Rightarrow> codepoint \<Rightarrow> lex_case" where
  "mozcpp_lex_85 eof la = (None,
      if la = CH_LF then SKIP 173 else
      if la = CH_CR then SKIP 84 else
      if la = CH_U then ADVANCE 339 else
      if la = CH_u then ADVANCE 331 else END_STATE)"

definition mozcpp_lex_86 :: "bool \<Rightarrow> codepoint \<Rightarrow> lex_case" where
  "mozcpp_lex_86 eof la = (None,
      if la = CH_LF then SKIP 221 else END_STATE)"

definition mozcpp_lex_87 :: "bool \<Rightarrow> codepoint \<Rightarrow> lex_case" where
  "mozcpp_lex_87 eof la = (None,
      if la = CH_LF then SKIP 221 else
      if la = CH_CR then SKIP 86 else
      if la = CH_U then ADVANCE 339 else
      if la = CH_u then ADVANCE 331 else END_STATE)"

definition mozcpp_lex_88 :: "bool \<Rightarrow> codepoint \<Rightarrow> lex_case" where
  "mozcpp_lex_88 eof la = (None,
      if la = CH_LF then SKIP 215 else END_STATE)"

definition mozcpp_lex_89 :: "bool \<Rightarrow> codepoint \<Rightarrow> lex_case" where
  "mozcpp_lex_89 eof la = (None,
      if la = CH_LF then SKIP 215 else
      if la = CH_CR then SKIP 88 else
      if la = CH_U then ADVANCE 339 else
      if la = CH_u then ADVANCE 331 else END_STATE)"

definition mozcpp_lex_90 :: "bool \<Rightarrow> codepoint \<Rightarrow> lex_case" where
  "mozcpp_lex_90 eof la = (None,
      if la = CH_LF then SKIP 248 else END_STATE)"

definition mozcpp_lex_91 :: "bool \<Rightarrow> codepoint \<Rightarrow> lex_case" where
  "mozcpp_lex_91 eof la = (None,
      if la = CH_LF then SKIP 248 else
      if la = CH_CR then SKIP 90 else
      if la = CH_U then ADVANCE 339 else
      if la = CH_u then ADVANCE 331 else END_STATE)"

definition mozcpp_lex_92 :: "bool \<Rightarrow> codepoint \<Rightarrow> lex_case" where
  "mozcpp_lex_92 eof la = (None,
      if la = CH_LF then SKIP 247 else END_STATE)"

definition mozcpp_lex_93 :: "bool \<Rightarrow> codepoint \<Rightarrow> lex_case" where
  "mozcpp_lex_93 eof la = (None,
      if la = CH_LF then SKIP 247 else
      if la = CH_CR then SKIP 92 else
      if la = CH_U then ADVANCE 339 else
      if la = CH_u then ADVANCE 331 else END_STATE)"

definition mozcpp_lex_94 :: "bool \<Rightarrow> codepoint \<Rightarrow> lex_case" where
  "mozcpp_lex_94 eof la = (None,
      if la = CH_LF then SKIP 227 else END_STATE)"

definition mozcpp_lex_95 :: "bool \<Rightarrow> codepoint \<Rightarrow> lex_case" where
  "mozcpp_lex_95 eof la = (None,
      if la = CH_LF then SKIP 227 else
      if la = CH_CR then SKIP 94 else
      if la = CH_U then ADVANCE 339 else
      if la = CH_u then ADVANCE 331 else END_STATE)"

definition mozcpp_lex_96 :: "bool \<Rightarrow> codepoint \<Rightarrow> lex_case" where
  "mozcpp_lex_96 eof la = (None,
      if la = CH_LF then SKIP 254 else END_STATE)"

definition mozcpp_lex_97 :: "bool \<Rightarrow> codepoint \<Rightarrow> lex_case" where
  "mozcpp_lex_97 eof la = (None,
      if la = CH_LF then SKIP 254 else
      if la = CH_CR then SKIP 96 else
      if la = CH_U then ADVANCE 339 else
      if la = CH_u then ADVANCE 331 else END_STATE)"

definition mozcpp_lex_98 :: "bool \<Rightarrow> codepoint \<Rightarrow> lex_case" where
  "mozcpp_lex_98 eof la = (None,
      if la = CH_LF then SKIP 181 else END_STATE)"

definition mozcpp_lex_99 :: "bool \<Rightarrow> codepoint \<Rightarrow> lex_case" where
  "mozcpp_lex_99 eof la = (None,
      if la = CH_LF then SKIP 181 else
      if la = CH_CR then SKIP 98 else
      if la = CH_U then ADVANCE 339 else
      if la = CH_u then ADVANCE 331 else END_STATE)"

definition mozcpp_lex_100 :: "bool \<Rightarrow> codepoint \<Rightarrow> lex_case" where
  "mozcpp_lex_100 eof la = (None,
      if la = CH_LF then SKIP 102 else END_STATE)"

definition mozcpp_lex_101 :: "bool \<Rightarrow> codepoint \<Rightarrow> lex_case" where
  "mozcpp_lex_101 eof la = (None,
      if la = CH_LF then SKIP 102 else
      if la = CH_CR then SKIP 100 else END_STATE)"

definition mozcpp_lex_102 :: "bool \<Rightarrow> codepoint \<Rightarrow> lex_case" where
  "mozcpp_lex_102 eof la = (None,
      case ADVANCE_MAP [(CH_LF, 354), (CH_BANG, 277), (CH_PERCENT, 435), (CH_AMP, 445),
        (CH_LPAREN, 410), (CH_STAR, 431), (CH_PLUS, 424), (CH_MINUS, 414), (CH_SLASH, 433),
        (CH_LT, 459), (CH_EQUALS, 278), (CH_GT, 450)] la of Some st \<Rightarrow> ADVANCE st |
        None \<Rightarrow> (
      if la = CH_BACKSLASH then SKIP 101 else
      if la = CH_CARET then ADVANCE 442 else
      if la = CH_BAR then ADVANCE 441 else
      if (CH_TAB \<le> la \<and> la \<le> CH_CR) \<or> la = CH_SPACE then SKIP 102 else
        END_STATE))"

definition mozcpp_lex_103 :: "bool \<Rightarrow> codepoint \<Rightarrow> lex_case" where
  "mozcpp_lex_103 eof la = (None,
      if la = CH_LF then SKIP 249 else END_STATE)"

definition mozcpp_lex_104 :: "bool \<Rightarrow> codepoint \<Rightarrow> lex_case" where
  "mozcpp_lex_104 eof la = (None,
      if la = CH_LF then SKIP 249 else
      if la = CH_CR then SKIP 103 else
      if la = CH_U then ADVANCE 339 else
      if la = CH_u then ADVANCE 331 else END_STATE)"

definition mozcpp_lex_105 :: "bool \<Rightarrow> codepoint \<Rightarrow> lex_case" where
  "mozcpp_lex_105 eof la = (None,
      if la = CH_LF then SKIP 253 else END_STATE)"

definition mozcpp_lex_106 :: "bool \<Rightarrow> codepoint \<Rightarrow> lex_case" where
  "mozcpp_lex_106 eof la = (None,
      if la = CH_LF then SKIP 253 else
      if la = CH_CR then SKIP 105 else
      if la = CH_U then ADVANCE 339 else
      if la = CH_u then ADVANCE 331 else END_STATE)"

definition mozcpp_lex_107 :: "bool \<Rightarrow> codepoint \<Rightarrow> lex_case" where
  "mozcpp_lex_107 eof la = (None,
      if la = CH_LF then SKIP 237 else END_STATE)"

definition mozcpp_lex_108 :: "bool \<Rightarrow> codepoint \<Rightarrow> lex_case" where
  "mozcpp_lex_108 eof la = (None,
      if la = CH_LF then SKIP 237 else
      if la = CH_CR then SKIP 107 else
      if la = CH_U then ADVANCE 339 else
      if la = CH_u then ADVANCE 331 else END_STATE)"

definition mozcpp_lex_109 :: "bool \<Rightarrow> codepoint \<Rightarrow> lex_case" where
  "mozcpp_lex_109 eof la = (None,
      if la = CH_LF then SKIP 238 else END_STATE)"

definition mozcpp_lex_110 :: "bool \<Rightarrow> codepoint \<Rightarrow> lex_case" where
  "mozcpp_lex_110 eof la = (None,
      if la = CH_LF then SKIP 238 else
      if la = CH_CR then SKIP 109 else
      if la = CH_U then ADVANCE 339 else
      if la = CH_u then ADVANCE 331 else END_STATE)"

definition mozcpp_lex_111 :: "bool \<Rightarrow> codepoint \<Rightarrow> lex_case" where
  "mozcpp_lex_111 eof la = (None,
      if la = CH_LF then SKIP 250 else
      if la = CH_QUOTE then ADVANCE 534 else
      if la = CH_SLASH then ADVANCE 537 else
      if la = CH_BACKSLASH then ADVANCE 536 else
      if (CH_TAB \<le> la \<and> la \<le> CH_CR) \<or> la = CH_SPACE then ADVANCE 538 else
      if la \<noteq> 0 then ADVANCE 535 else END_STATE)"

definition mozcpp_lex_112 :: "bool \<Rightarrow> codepoint \<Rightarrow> lex_case" where
  "mozcpp_lex_112 eof la = (None,
      if la = CH_LF then ADVANCE 550 else
      if la = CH_CR then ADVANCE 549 else
      if la = CH_U then ADVANCE 340 else
      if la = CH_u then ADVANCE 332 else
      if la = CH_x then ADVANCE 326 else
      if CH_0 \<le> la \<and> la \<le> CH_9 then ADVANCE 552 else
      if la \<noteq> 0 then ADVANCE 549 else END_STATE)"

definition mozcpp_lex_113 :: "bool \<Rightarrow> codepoint \<Rightarrow> lex_case" where
  "mozcpp_lex_113 eof la = (None,
      if la = CH_LF then SKIP 239 else
      if la = CH_DQUOTE then ADVANCE 543 else
      if la = CH_SLASH then ADVANCE 544 else
      if la = CH_BACKSLASH then ADVANCE 112 else
      if (CH_TAB \<le> la \<and> la \<le> CH_CR) \<or> la = CH_SPACE then ADVANCE 547 else
      if la \<noteq> 0 then ADVANCE 548 else END_STATE)"

definition mozcpp_lex_114 :: "bool \<Rightarrow> codepoint \<Rightarrow> lex_case" where
  "mozcpp_lex_114 eof la = (None,
      if la = CH_LF then ADVANCE 347 else
      if la = CH_CR then ADVANCE 118 else
      if la = CH_LPAREN then ADVANCE 349 else
      if la = CH_SLASH then ADVANCE 375 else
      if la = CH_BACKSLASH then ADVANCE 370 else
      if (CH_TAB \<le> la \<and> la \<le> CH_FF) \<or> la = CH_SPACE then SKIP 268 else
      if la \<noteq> 0 then ADVANCE 377 else END_STATE)"

definition mozcpp_lex_115 :: "bool \<Rightarrow> codepoint \<Rightarrow> lex_case" where
  "mozcpp_lex_115 eof la = (None,
      if la = CH_LF then ADVANCE 347 else
      if la = CH_CR then ADVANCE 118 else
      if la = CH_SLASH then ADVANCE 375 else
      if la = CH_BACKSLASH then ADVANCE 370 else
      if (CH_TAB \<le> la \<and> la \<le> CH_FF) \<or> la = CH_SPACE then SKIP 268 else
      if la \<noteq> 0 then ADVANCE 377 else END_STATE)"

definition mozcpp_lex_116 :: "bool \<Rightarrow> codepoint \<Rightarrow> lex_case" where
  "mozcpp_lex_116 eof la = (None,
      if la = CH_LF then ADVANCE 347 else
      if la = CH_CR then ADVANCE 117 else
      if la = CH_LPAREN then ADVANCE 410 else
      if la = CH_SLASH then ADVANCE 259 else
      if la = CH_BACKSLASH then SKIP 120 else
      if (CH_TAB \<le> la \<and> la \<le> CH_FF) \<or> la = CH_SPACE then SKIP 255 else
        END_STATE)"

definition mozcpp_lex_117 :: "bool \<Rightarrow> codepoint \<Rightarrow> lex_case" where
  "mozcpp_lex_117 eof la = (None,
      if la = CH_LF then ADVANCE 347 else
      if la = CH_LPAREN then ADVANCE 410 else
      if la = CH_SLASH then ADVANCE 259 else
      if la = CH_BACKSLASH then SKIP 120 else
      if (CH_TAB \<le> la \<and> la \<le> CH_CR) \<or> la = CH_SPACE then SKIP 255 else
        END_STATE)"

definition mozcpp_lex_118 :: "bool \<Rightarrow> codepoint \<Rightarrow> lex_case" where
  "mozcpp_lex_118 eof la = (None,
      if la = CH_LF then ADVANCE 347 else
      if la = CH_SLASH then ADVANCE 375 else
      if la = CH_BACKSLASH then ADVANCE 370 else
      if (CH_TAB \<le> la \<and> la \<le> CH_CR) \<or> la = CH_SPACE then SKIP 268 else
      if la \<noteq> 0 then ADVANCE 377 else END_STATE)"

definition mozcpp_lex_119 :: "bool \<Rightarrow> codepoint \<Rightarrow> lex_case" where
  "mozcpp_lex_119 eof la = (None,
      if la = CH_LF then SKIP 255 else END_STATE)"

definition mozcpp_lex_120 :: "bool \<Rightarrow> codepoint \<Rightarrow> lex_case" where
  "mozcpp_lex_120 eof la = (None,
      if la = CH_LF then SKIP 255 else
      if la = CH_CR then SKIP 119 else END_STATE)"

definition mozcpp_lex_121 :: "bool \<Rightarrow> codepoint \<Rightarrow> lex_case" where
  "mozcpp_lex_121 eof la = (None,
      if la = CH_LF then SKIP 256 else END_STATE)"

definition mozcpp_lex_122 :: "bool \<Rightarrow> codepoint \<Rightarrow> lex_case" where
  "mozcpp_lex_122 eof la = (None,
      if la = CH_LF then SKIP 256 else
      if la = CH_CR then SKIP 121 else END_STATE)"

definition mozcpp_lex_123 :: "bool \<Rightarrow> codepoint \<Rightarrow> lex_case" where
  "mozcpp_lex_123 eof la = (None,
      if la = CH_LF then SKIP 167 else END_STATE)"

definition mozcpp_lex_124 :: "bool \<Rightarrow> codepoint \<Rightarrow> lex_case" where
  "mozcpp_lex_124 eof la = (None,
      if la = CH_LF then SKIP 167 else
      if la = CH_CR then SKIP 123 else
      if la = CH_U then ADVANCE 339 else
      if la = CH_u then ADVANCE 331 else END_STATE)"

definition mozcpp_lex_125 :: "bool \<Rightarrow> codepoint \<Rightarrow> lex_case" where
  "mozcpp_lex_125 eof la = (None,
      if la = CH_LF then SKIP 171 else END_STATE)"

definition mozcpp_lex_126 :: "bool \<Rightarrow> codepoint \<Rightarrow> lex_case" where
  "mozcpp_lex_126 eof la = (None,
      if la = CH_LF then SKIP 171 else
      if la = CH_CR then SKIP 125 else
      if la = CH_U then ADVANCE 339 else
      if la = CH_u then ADVANCE 331 else END_STATE)"

definition mozcpp_lex_127 :: "bool \<Rightarrow> codepoint \<Rightarrow> lex_case" where
  "mozcpp_lex_127 eof la = (None,
      if la = CH_LF then SKIP 200 else END_STATE)"

definition mozcpp_lex_128 :: "bool \<Rightarrow> codepoint \<Rightarrow> lex_case" where
  "mozcpp_lex_128 eof la = (None,
      if la = CH_LF then SKIP 200 else
      if la = CH_CR then SKIP 127 else
      if la = CH_U then ADVANCE 339 else
      if la = CH_u then ADVANCE 331 else END_STATE)"

definition mozcpp_lex_129 :: "bool \<Rightarrow> codepoint \<Rightarrow> lex_case" where
  "mozcpp_lex_129 eof la = (None,
      if la = CH_LF then SKIP 225 else END_STATE)"

definition mozcpp_lex_130 :: "bool \<Rightarrow> codepoint \<Rightarrow> lex_case" where
  "mozcpp_lex_130 eof la = (None,
      if la = CH_LF then SKIP 225 else
      if la = CH_CR then SKIP 129 else
      if la = CH_U then ADVANCE 339 else
      if la = CH_u then ADVANCE 331 else END_STATE)"

definition mozcpp_lex_131 :: "bool \<Rightarrow> codepoint \<Rightarrow> lex_case" where
  "mozcpp_lex_131 eof la = (None,
      if la = CH_LF then SKIP 208 else END_STATE)"

definition mozcpp_lex_132 :: "bool \<Rightarrow> codepoint \<Rightarrow> lex_case" where
  "mozcpp_lex_132 eof la = (None,
      if la = CH_LF then SKIP 208 else
      if la = CH_CR then SKIP 131 else
      if la = CH_U then ADVANCE 339 else
      if la = CH_u then ADVANCE 331 else END_STATE)"

definition mozcpp_lex_133 :: "bool \<Rightarrow> codepoint \<Rightarrow> lex_case" where
  "mozcpp_lex_133 eof la = (None,
      if la = CH_LF then SKIP 233 else END_STATE)"

definition mozcpp_lex_134 :: "bool \<Rightarrow> codepoint \<Rightarrow> lex_case" where
  "mozcpp_lex_134 eof la = (None,
      if la = CH_LF then SKIP 233 else
      if la = CH_CR then SKIP 133 else
      if la = CH_U then ADVANCE 339 else
      if la = CH_u then ADVANCE 331 else END_STATE)"

definition mozcpp_lex_135 :: "bool \<Rightarrow> codepoint \<Rightarrow> lex_case" where
  "mozcpp_lex_135 eof la = (None,
      if la = CH_LF then SKIP 232 else END_STATE)"

definition mozcpp_lex_136 :: "bool \<Rightarrow> codepoint \<Rightarrow> lex_case" where
  "mozcpp_lex_136 eof la = (None,
      if la = CH_LF then SKIP 232 else
      if la = CH_CR then SKIP 135 else
      if la = CH_U then ADVANCE 339 else
      if la = CH_u then ADVANCE 331 else END_STATE)"

definition mozcpp_lex_137 :: "bool \<Rightarrow> codepoint \<Rightarrow> lex_case" where
  "mozcpp_lex_137 eof la = (None,
      if la = CH_LF then SKIP 185 else END_STATE)"

definition mozcpp_lex_138 :: "bool \<Rightarrow> codepoint \<Rightarrow> lex_case" where
  "mozcpp_lex_138 eof la = (None,
      if la = CH_LF then SKIP 185 else
      if la = CH_CR then SKIP 137 else
      if la = CH_U then ADVANCE 339 else
      if la = CH_u then ADVANCE 331 else END_STATE)"

definition mozcpp_lex_139 :: "bool \<Rightarrow> codepoint \<Rightarrow> lex_case" where
  "mozcpp_lex_139 eof la = (None,
      if la = CH_LF then SKIP 230 else END_STATE)"

definition mozcpp_lex_140 :: "bool \<Rightarrow> codepoint \<Rightarrow> lex_case" where
  "mozcpp_lex_140 eof la = (None,
      if la = CH_LF then SKIP 230 else
      if la = CH_CR then SKIP 139 else
      if la = CH_U then ADVANCE 339 else
      if la = CH_u then ADVANCE 331 else END_STATE)"

definition mozcpp_lex_141 :: "bool \<Rightarrow> codepoint \<Rightarrow> lex_case" where
  "mozcpp_lex_141 eof la = (None,
      if la = CH_LF then SKIP 195 else END_STATE)"

definition mozcpp_lex_142 :: "bool \<Rightarrow> codepoint \<Rightarrow> lex_case" where
  "mozcpp_lex_142 eof la = (None,
      if la = CH_LF then SKIP 195 else
      if la = CH_CR then SKIP 141 else
      if la = CH_U then ADVANCE 339 else
      if la = CH_u then ADVANCE 331 else END_STATE)"

definition mozcpp_lex_143 :: "bool \<Rightarrow> codepoint \<Rightarrow> lex_case" where
  "mozcpp_lex_143 eof la = (None,
      if la = CH_LF then SKIP 205 else END_STATE)"

definition mozcpp_lex_144 :: "bool \<Rightarrow> codepoint \<Rightarrow> lex_case" where
  "mozcpp_lex_144 eof la = (None,
      if la = CH_LF then SKIP 205 else
      if la = CH_CR then SKIP 143 else
      if la = CH_U then ADVANCE 339 else
      if la = CH_u then ADVANCE 331 else END_STATE)"

definition mozcpp_lex_145 :: "bool \<Rightarrow> codepoint \<Rightarrow> lex_case" where
  "mozcpp_lex_145 eof la = (None,
      if la = CH_LF then SKIP 217 else END_STATE)"

definition mozcpp_lex_146 :: "bool \<Rightarrow> codepoint \<Rightarrow> lex_case" where
  "mozcpp_lex_146 eof la = (None,
      if la = CH_LF then SKIP 217 else
      if la = CH_CR then SKIP 145 else
      if la = CH_U then ADVANCE 339 else
      if la = CH_u then ADVANCE 331 else END_STATE)"

definition mozcpp_lex_147 :: "bool \<Rightarrow> codepoint \<Rightarrow> lex_case" where
  "mozcpp_lex_147 eof la = (None,
      if la = CH_LF then SKIP 168 else END_STATE)"

definition mozcpp_lex_148 :: "bool \<Rightarrow> codepoint \<Rightarrow> lex_case" where
  "mozcpp_lex_148 eof la = (None,
      if la = CH_LF then SKIP 168 else
      if la = CH_CR then SKIP 147 else
      if la = CH_U then ADVANCE 339 else
      if la = CH_u then ADVANCE 331 else END_STATE)"

definition mozcpp_lex_149 :: "bool \<Rightarrow> codepoint \<Rightarrow> lex_case" where
  "mozcpp_lex_149 eof la = (None,
      if la = CH_LF then SKIP 203 else END_STATE)"

definition mozcpp_lex_150 :: "bool \<Rightarrow> codepoint \<Rightarrow> lex_case" where
  "mozcpp_lex_150 eof la = (None,
      if la = CH_LF then SKIP 203 else
      if la = CH_CR then SKIP 149 else
      if la = CH_U then ADVANCE 339 else
      if la = CH_u then ADVANCE 331 else END_STATE)"

definition mozcpp_lex_151 :: "bool \<Rightarrow> codepoint \<Rightarrow> lex_case" where
  "mozcpp_lex_151 eof la = (None,
      if la = CH_LF then SKIP 226 else END_STATE)"

definition mozcpp_lex_152 :: "bool \<Rightarrow> codepoint \<Rightarrow> lex_case" where
  "mozcpp_lex_152 eof la = (None,
      if la = CH_LF then SKIP 226 else
      if la = CH_CR then SKIP 151 else
      if la = CH_U then ADVANCE 339 else
      if la = CH_u then ADVANCE 331 else END_STATE)"

definition mozcpp_lex_153 :: "bool \<Rightarrow> codepoint \<Rightarrow> lex_case" where
  "mozcpp_lex_153 eof la = (None,
      if la = CH_LF then SKIP 220 else END_STATE)"

definition mozcpp_lex_154 :: "bool \<Rightarrow> codepoint \<Rightarrow> lex_case" where
  "mozcpp_lex_154 eof la = (None,
      if la = CH_LF then SKIP 220 else
      if la = CH_CR then SKIP 153 else
      if la = CH_U then ADVANCE 339 else
      if la = CH_u then ADVANCE 331 else END_STATE)"

definition mozcpp_lex_155 :: "bool \<Rightarrow> codepoint \<Rightarrow> lex_case" where
  "mozcpp_lex_155 eof la = (None,
      if la = CH_LF then SKIP 211 else END_STATE)"

definition mozcpp_lex_156 :: "bool \<Rightarrow> codepoint \<Rightarrow> lex_case" where
  "mozcpp_lex_156 eof la = (None,
      if la = CH_LF then SKIP 211 else
      if la = CH_CR then SKIP 155 else
      if la = CH_U then ADVANCE 339 else
      if la = CH_u then ADVANCE 331 else END_STATE)"

definition mozcpp_lex_157 :: "bool \<Rightarrow> codepoint \<Rightarrow> lex_case" where
  "mozcpp_lex_157 eof la = (None,
      if la = CH_LF then SKIP 218 else END_STATE)"

definition mozcpp_lex_158 :: "bool \<Rightarrow> codepoint \<Rightarrow> lex_case" where
  "mozcpp_lex_158 eof la = (None,
      if la = CH_LF then SKIP 218 else
      if la = CH_CR then SKIP 157 else
      if la = CH_U then ADVANCE 339 else
      if la = CH_u then ADVANCE 331 else END_STATE)"

definition mozcpp_lex_159 :: "bool \<Rightarrow> codepoint \<Rightarrow> lex_case" where
  "mozcpp_lex_159 eof la = (None,
      if la = CH_LF then SKIP 209 else END_STATE)"

definition mozcpp_lex_160 :: "bool \<Rightarrow> codepoint \<Rightarrow> lex_case" where
  "mozcpp_lex_160 eof la = (None,
      if la = CH_LF then SKIP 209 else
      if la = CH_CR then SKIP 159 else
      if la = CH_U then ADVANCE 339 else
      if la = CH_u then ADVANCE 331 else END_STATE)"

definition mozcpp_lex_161 :: "bool \<Rightarrow> codepoint \<Rightarrow> lex_case" where
  "mozcpp_lex_161 eof la = (None,
      if la = CH_LF then SKIP 235 else END_STATE)"

definition mozcpp_lex_162 :: "bool \<Rightarrow> codepoint \<Rightarrow> lex_case" where
  "mozcpp_lex_162 eof la = (None,
      if la = CH_LF then SKIP 235 else
      if la = CH_CR then SKIP 161 else
      if la = CH_U then ADVANCE 339 else
      if la = CH_u then ADVANCE 331 else END_STATE)"

definition mozcpp_lex_163 :: "bool \<Rightarrow> codepoint \<Rightarrow> lex_case" where
  "mozcpp_lex_163 eof la = (None,
      if la = CH_LF then SKIP 231 else END_STATE)"

definition mozcpp_lex_164 :: "bool \<Rightarrow> codepoint \<Rightarrow> lex_case" where
  "mozcpp_lex_164 eof la = (None,
      if la = CH_LF then SKIP 231 else
      if la = CH_CR then SKIP 163 else
      if la = CH_U then ADVANCE 339 else
      if la = CH_u then ADVANCE 331 else END_STATE)"

definition mozcpp_lex_165 :: "bool \<Rightarrow> codepoint \<Rightarrow> lex_case" where
  "mozcpp_lex_165 eof la = (None,
      if la = CH_CR then ADVANCE 1161 else
      if la = CH_BACKSLASH then ADVANCE 1155 else
      if la \<noteq> 0 then ADVANCE 1160 else END_STATE)"

definition mozcpp_lex_166 :: "bool \<Rightarrow> codepoint \<Rightarrow> lex_case" where
  "mozcpp_lex_166 eof la = (None,
      case ADVANCE_MAP [(CH_BANG, 412), (CH_DQUOTE, 543), (CH_HASH, 290), (CH_PERCENT, 436),
        (CH_AMP, 446), (CH_QUOTE, 534), (CH_LPAREN, 410), (CH_RPAREN, 352), (CH_STAR, 432),
        (CH_PLUS, 426), (CH_COMMA, 351), (CH_MINUS, 415), (CH_DOT, 508), (CH_SLASH, 434), (CH_0,
        516), (CH_COLON, 492), (CH_SEMICOLON, 464), (CH_LT, 456), (CH_EQUALS, 476), (CH_GT,
        1162), (CH_QMARK, 493), (CH_A, 1005), (CH_B, 985), (CH_C, 862), (CH_D, 1066), (CH_F,
        835), (CH_H, 830), (CH_I, 961), (CH_L, 794), (CH_P, 854), (CH_Q, 1067), (CH_R, 799),
        (CH_S, 867), (CH_T, 855), (CH_U, 800), (CH_V, 992), (CH_W, 865), (CH_LBRACKET, 472),
        (CH_BACKSLASH, 2), (CH_RBRACKET, 474), (CH_CARET, 443), (CH_b, 1132), (CH_c, 1109),
        (CH_d, 1127), (CH_f, 1084), (CH_i, 1124), (CH_m, 1086), (CH_p, 1143), (CH_s, 1111),
        (CH_t, 1135), (CH_u, 805), (CH_v, 1130), (CH_w, 1096), (CH_LBRACE, 468), (CH_BAR, 440),
        (CH_RBRACE, 469), (CH_TILDE, 413)] la of Some st \<Rightarrow> ADVANCE st | None
        \<Rightarrow> (
      if (CH_TAB \<le> la \<and> la \<le> CH_CR) \<or> la = CH_SPACE then SKIP 166 else
      if CH_1 \<le> la \<and> la \<le> CH_9 then ADVANCE 519 else
      if mozcpp_starts_identifier la then ADVANCE 1152 else END_STATE))"

definition mozcpp_lex_167 :: "bool \<Rightarrow> codepoint \<Rightarrow> lex_case" where
  "mozcpp_lex_167 eof la = (None,
      case ADVANCE_MAP [(CH_BANG, 412), (CH_DQUOTE, 543), (CH_HASH, 299), (CH_PERCENT, 436),
        (CH_AMP, 446), (CH_QUOTE, 534), (CH_LPAREN, 410), (CH_RPAREN, 352), (CH_STAR, 432),
        (CH_PLUS, 426), (CH_COMMA, 351), (CH_MINUS, 416), (CH_DOT, 508), (CH_SLASH, 434), (CH_0,
        516), (CH_COLON, 492), (CH_SEMICOLON, 464), (CH_LT, 456), (CH_EQUALS, 476), (CH_GT, 451),
        (CH_QMARK, 493), (CH_A, 1005), (CH_B, 985), (CH_C, 862), (CH_D, 1066), (CH_F, 835),
        (CH_H, 830), (CH_I, 961), (CH_L, 794), (CH_P, 854), (CH_Q, 1067), (CH_R, 799), (CH_S,
        867), (CH_T, 855), (CH_U, 800), (CH_V, 992), (CH_W, 865), (CH_LBRACKET, 470),
        (CH_BACKSLASH, 124), (CH_RBRACKET, 474), (CH_CARET, 443), (CH_b, 1132), (CH_c, 1109),
        (CH_d, 1127), (CH_f, 1084), (CH_i, 1124), (CH_m, 1086), (CH_p, 1143), (CH_s, 1111),
        (CH_t, 1135), (CH_u, 805), (CH_v, 1130), (CH_w, 1096), (CH_LBRACE, 468), (CH_BAR, 440),
        (CH_RBRACE, 469), (CH_TILDE, 413)] la of Some st \<Rightarrow> ADVANCE st | None
        \<Rightarrow> (
      if (CH_TAB \<le> la \<and> la \<le> CH_CR) \<or> la = CH_SPACE then SKIP 167 else
      if CH_1 \<le> la \<and> la \<le> CH_9 then ADVANCE 519 else
      if mozcpp_starts_identifier la then ADVANCE 1152 else END_STATE))"

definition mozcpp_lex_168 :: "bool \<Rightarrow> codepoint \<Rightarrow> lex_case" where
  "mozcpp_lex_168 eof la = (None,
      case ADVANCE_MAP [(CH_BANG, 412), (CH_DQUOTE, 543), (CH_HASH, 299), (CH_PERCENT, 435),
        (CH_AMP, 445), (CH_QUOTE, 534), (CH_LPAREN, 410), (CH_RPAREN, 352), (CH_STAR, 431),
        (CH_PLUS, 427), (CH_COMMA, 351), (CH_MINUS, 417), (CH_DOT, 508), (CH_SLASH, 433), (CH_0,
        516), (CH_COLON, 492), (CH_SEMICOLON, 464), (CH_LT, 458), (CH_EQUALS, 278), (CH_GT, 450),
        (CH_QMARK, 493), (CH_A, 1005), (CH_B, 985), (CH_C, 862), (CH_D, 1066), (CH_F, 835),
        (CH_H, 830), (CH_I, 961), (CH_L, 794), (CH_P, 854), (CH_Q, 1067), (CH_R, 799), (CH_S,
        867), (CH_T, 855), (CH_U, 800), (CH_V, 992), (CH_W, 865), (CH_LBRACKET, 470),
        (CH_BACKSLASH, 148), (CH_RBRACKET, 474), (CH_CARET, 442), (CH_b, 1132), (CH_c, 1109),
        (CH_d, 1127), (CH_f, 1084), (CH_i, 1124), (CH_m, 1086), (CH_p, 1143), (CH_s, 1111),
        (CH_t, 1135), (CH_u, 805), (CH_v, 1130), (CH_w, 1096), (CH_LBRACE, 468), (CH_BAR, 441),
        (CH_RBRACE, 469), (CH_TILDE, 413)] la of Some st \<Rightarrow> ADVANCE st | None
        \<Rightarrow> (
      if (CH_TAB \<le> la \<and> la \<le> CH_CR) \<or> la = CH_SPACE then SKIP 168 else
      if CH_1 \<le> la \<and> la \<le> CH_9 then ADVANCE 519 else
      if mozcpp_starts_identifier la then ADVANCE 1152 else END_STATE))"

definition mozcpp_lex_169 :: "bool \<Rightarrow> codepoint \<Rightarrow> lex_case" where
  "mozcpp_lex_169 eof la = (None,
      case ADVANCE_MAP [(CH_BANG, 412), (CH_DQUOTE, 543), (CH_PERCENT, 436), (CH_AMP, 446),
        (CH_QUOTE, 534), (CH_LPAREN, 410), (CH_RPAREN, 352), (CH_STAR, 432), (CH_PLUS, 426),
        (CH_COMMA, 351), (CH_MINUS, 415), (CH_DOT, 508), (CH_SLASH, 434), (CH_0, 516), (CH_COLON,
        275), (CH_LT, 456), (CH_EQUALS, 476), (CH_GT, 451), (CH_QMARK, 493), (CH_A, 1005), (CH_B,
        985), (CH_C, 862), (CH_D, 1066), (CH_F, 835), (CH_H, 830), (CH_I, 961), (CH_L, 794),
        (CH_P, 854), (CH_Q, 1067), (CH_R, 799), (CH_S, 867), (CH_T, 855), (CH_U, 800), (CH_V,
        992), (CH_W, 865), (CH_LBRACKET, 470), (CH_BACKSLASH, 33), (CH_CARET, 443), (CH_b, 1132),
        (CH_c, 1109), (CH_d, 1127), (CH_f, 1084), (CH_i, 1124), (CH_m, 1086), (CH_p, 1143),
        (CH_s, 1111), (CH_t, 1135), (CH_u, 805), (CH_v, 1130), (CH_w, 1096), (CH_LBRACE, 468),
        (CH_BAR, 440), (CH_TILDE, 413)] la of Some st \<Rightarrow> ADVANCE st | None
        \<Rightarrow> (
      if (CH_TAB \<le> la \<and> la \<le> CH_CR) \<or> la = CH_SPACE then SKIP 169 else
      if CH_1 \<le> la \<and> la \<le> CH_9 then ADVANCE 519 else
      if mozcpp_starts_identifier la then ADVANCE 1152 else END_STATE))"

definition mozcpp_lex_170 :: "bool \<Rightarrow> codepoint \<Rightarrow> lex_case" where
  "mozcpp_lex_170 eof la = (None,
      case ADVANCE_MAP [(CH_BANG, 412), (CH_DQUOTE, 543), (CH_PERCENT, 436), (CH_AMP, 446),
        (CH_QUOTE, 534), (CH_LPAREN, 410), (CH_STAR, 432), (CH_PLUS, 426), (CH_COMMA, 351),
        (CH_MINUS, 416), (CH_DOT, 508), (CH_SLASH, 434), (CH_0, 516), (CH_COLON, 275), (CH_LT,
        456), (CH_EQUALS, 476), (CH_GT, 1162), (CH_QMARK, 493), (CH_A, 1005), (CH_B, 985), (CH_C,
        862), (CH_D, 1066), (CH_F, 835), (CH_H, 830), (CH_I, 961), (CH_L, 794), (CH_P, 854),
        (CH_Q, 1067), (CH_R, 799), (CH_S, 867), (CH_T, 855), (CH_U, 800), (CH_V, 992), (CH_W,
        865), (CH_LBRACKET, 470), (CH_BACKSLASH, 37), (CH_CARET, 443), (CH_b, 1132), (CH_c,
        1109), (CH_d, 1127), (CH_f, 1084), (CH_i, 1124), (CH_m, 1086), (CH_p, 1143), (CH_s,
        1111), (CH_t, 1135), (CH_u, 805), (CH_v, 1130), (CH_w, 1096), (CH_LBRACE, 468), (CH_BAR,
        440), (CH_TILDE, 413)] la of Some st \<Rightarrow> ADVANCE st | None \<Rightarrow> (
      if (CH_TAB \<le> la \<and> la \<le> CH_CR) \<or> la = CH_SPACE then SKIP 170 else
      if CH_1 \<le> la \<and> la \<le> CH_9 then ADVANCE 519 else
      if mozcpp_starts_identifier la then ADVANCE 1152 else END_STATE))"

definition mozcpp_lex_171 :: "bool \<Rightarrow> codepoint \<Rightarrow> lex_case" where
  "mozcpp_lex_171 eof la = (None,
      case ADVANCE_MAP [(CH_BANG, 412), (CH_DQUOTE, 543), (CH_PERCENT, 435), (CH_AMP, 445),
        (CH_QUOTE, 534), (CH_LPAREN, 410), (CH_STAR, 431), (CH_PLUS, 427), (CH_COMMA, 351),
        (CH_MINUS, 417), (CH_DOT, 508), (CH_SLASH, 433), (CH_0, 516), (CH_COLON, 275), (CH_LT,
        458), (CH_EQUALS, 278), (CH_GT, 1162), (CH_QMARK, 493), (CH_A, 1005), (CH_B, 985), (CH_C,
        862), (CH_D, 1066), (CH_F, 835), (CH_H, 830), (CH_I, 961), (CH_L, 794), (CH_P, 854),
        (CH_Q, 1067), (CH_R, 799), (CH_S, 867), (CH_T, 855), (CH_U, 800), (CH_V, 992), (CH_W,
        865), (CH_LBRACKET, 470), (CH_BACKSLASH, 126), (CH_CARET, 442), (CH_b, 1132), (CH_c,
        1109), (CH_d, 1127), (CH_f, 1084), (CH_i, 1124), (CH_m, 1086), (CH_p, 1143), (CH_s,
        1111), (CH_t, 1135), (CH_u, 805), (CH_v, 1130), (CH_w, 1096), (CH_LBRACE, 468), (CH_BAR,
        441), (CH_TILDE, 413)] la of Some st \<Rightarrow> ADVANCE st | None \<Rightarrow> (
      if (CH_TAB \<le> la \<and> la \<le> CH_CR) \<or> la = CH_SPACE then SKIP 171 else
      if CH_1 \<le> la \<and> la \<le> CH_9 then ADVANCE 519 else
      if mozcpp_starts_identifier la then ADVANCE 1152 else END_STATE))"

definition mozcpp_lex_172 :: "bool \<Rightarrow> codepoint \<Rightarrow> lex_case" where
  "mozcpp_lex_172 eof la = (None,
      case ADVANCE_MAP [(CH_BANG, 412), (CH_DQUOTE, 240), (CH_PERCENT, 436), (CH_AMP, 446),
        (CH_LPAREN, 257), (CH_STAR, 432), (CH_PLUS, 428), (CH_COMMA, 351), (CH_MINUS, 419),
        (CH_SLASH, 434), (CH_COLON, 275), (CH_LT, 456), (CH_EQUALS, 476), (CH_GT, 451), (CH_A,
        1005), (CH_B, 985), (CH_C, 862), (CH_D, 1066), (CH_F, 950), (CH_H, 830), (CH_I, 961),
        (CH_L, 840), (CH_P, 854), (CH_Q, 1067), (CH_S, 867), (CH_T, 857), (CH_U, 863), (CH_V,
        992), (CH_W, 865), (CH_LBRACKET, 287), (CH_BACKSLASH, 21), (CH_CARET, 443), (CH_b, 1132),
        (CH_c, 1109), (CH_d, 1127), (CH_f, 1122), (CH_i, 1124), (CH_m, 1086), (CH_p, 1143),
        (CH_s, 1111), (CH_u, 1117), (CH_v, 1130), (CH_w, 1096), (CH_BAR, 440), (CH_TILDE, 413)]
        la of Some st \<Rightarrow> ADVANCE st | None \<Rightarrow> (
      if (CH_TAB \<le> la \<and> la \<le> CH_CR) \<or> la = CH_SPACE then SKIP 172 else
      if mozcpp_starts_identifier la then ADVANCE 1152 else END_STATE))"

definition mozcpp_lex_173 :: "bool \<Rightarrow> codepoint \<Rightarrow> lex_case" where
  "mozcpp_lex_173 eof la = (None,
      case ADVANCE_MAP [(CH_BANG, 412), (CH_DQUOTE, 240), (CH_PERCENT, 436), (CH_AMP, 446),
        (CH_LPAREN, 257), (CH_STAR, 432), (CH_PLUS, 428), (CH_COMMA, 351), (CH_MINUS, 419),
        (CH_SLASH, 434), (CH_LT, 456), (CH_EQUALS, 476), (CH_GT, 451), (CH_LBRACKET, 288),
        (CH_BACKSLASH, 85), (CH_CARET, 443), (CH_BAR, 440), (CH_TILDE, 413)] la of Some st
        \<Rightarrow> ADVANCE st | None \<Rightarrow> (
      if (CH_TAB \<le> la \<and> la \<le> CH_CR) \<or> la = CH_SPACE then SKIP 173 else
      if mozcpp_starts_identifier la then ADVANCE 1152 else END_STATE))"

definition mozcpp_lex_174 :: "bool \<Rightarrow> codepoint \<Rightarrow> lex_case" where
  "mozcpp_lex_174 eof la = (None,
      case ADVANCE_MAP [(CH_BANG, 411), (CH_DQUOTE, 543), (CH_HASH, 290), (CH_AMP, 445),
        (CH_QUOTE, 534), (CH_LPAREN, 410), (CH_STAR, 431), (CH_PLUS, 427), (CH_COMMA, 351),
        (CH_MINUS, 418), (CH_DOT, 319), (CH_SLASH, 259), (CH_0, 516), (CH_COLON, 275),
        (CH_SEMICOLON, 464), (CH_GT, 449), (CH_A, 1005), (CH_B, 985), (CH_C, 862), (CH_D, 1066),
        (CH_F, 835), (CH_H, 830), (CH_I, 961), (CH_L, 794), (CH_P, 854), (CH_Q, 1067), (CH_R,
        799), (CH_S, 867), (CH_T, 855), (CH_U, 800), (CH_V, 992), (CH_W, 865), (CH_LBRACKET,
        471), (CH_BACKSLASH, 9), (CH_RBRACKET, 289), (CH_b, 1132), (CH_c, 1109), (CH_d, 1127),
        (CH_f, 1084), (CH_i, 1124), (CH_m, 1086), (CH_p, 1143), (CH_s, 1111), (CH_t, 1135),
        (CH_u, 805), (CH_v, 1130), (CH_w, 1096), (CH_LBRACE, 468), (CH_TILDE, 413)] la of Some st
        \<Rightarrow> ADVANCE st | None \<Rightarrow> (
      if (CH_TAB \<le> la \<and> la \<le> CH_CR) \<or> la = CH_SPACE then SKIP 174 else
      if CH_1 \<le> la \<and> la \<le> CH_9 then ADVANCE 519 else
      if mozcpp_starts_identifier la then ADVANCE 1152 else END_STATE))"

definition mozcpp_lex_175 :: "bool \<Rightarrow> codepoint \<Rightarrow> lex_case" where
  "mozcpp_lex_175 eof la = (None,
      case ADVANCE_MAP [(CH_BANG, 411), (CH_DQUOTE, 543), (CH_HASH, 294), (CH_PERCENT, 435),
        (CH_AMP, 445), (CH_QUOTE, 534), (CH_LPAREN, 410), (CH_RPAREN, 352), (CH_STAR, 431),
        (CH_PLUS, 427), (CH_COMMA, 351), (CH_MINUS, 418), (CH_DOT, 265), (CH_SLASH, 433), (CH_0,
        516), (CH_COLON, 275), (CH_SEMICOLON, 464), (CH_LT, 455), (CH_EQUALS, 475), (CH_GT,
        1162), (CH_A, 1007), (CH_B, 984), (CH_C, 872), (CH_D, 1065), (CH_F, 839), (CH_H, 834),
        (CH_I, 964), (CH_L, 793), (CH_P, 859), (CH_Q, 1068), (CH_R, 798), (CH_S, 874), (CH_T,
        860), (CH_U, 801), (CH_V, 996), (CH_W, 873), (CH_LBRACKET, 471), (CH_BACKSLASH, 4),
        (CH_RBRACKET, 474), (CH_CARET, 442), (CH_b, 1132), (CH_c, 1109), (CH_d, 1127), (CH_f,
        1084), (CH_i, 1124), (CH_m, 1086), (CH_p, 1143), (CH_s, 1111), (CH_t, 1135), (CH_u, 805),
        (CH_v, 1130), (CH_w, 1096), (CH_LBRACE, 468), (CH_BAR, 313), (CH_RBRACE, 469), (CH_TILDE,
        413)] la of Some st \<Rightarrow> ADVANCE st | None \<Rightarrow> (
      if (CH_TAB \<le> la \<and> la \<le> CH_CR) \<or> la = CH_SPACE then SKIP 175 else
      if CH_1 \<le> la \<and> la \<le> CH_9 then ADVANCE 519 else
      if CH_E \<le> la \<and> la \<le> CH_UNDERSCORE then ADVANCE 1151 else
      if mozcpp_starts_identifier la then ADVANCE 1152 else END_STATE))"

definition mozcpp_lex_176 :: "bool \<Rightarrow> codepoint \<Rightarrow> lex_case" where
  "mozcpp_lex_176 eof la = (None,
      case ADVANCE_MAP [(CH_BANG, 411), (CH_DQUOTE, 543), (CH_HASH, 294), (CH_AMP, 445),
        (CH_QUOTE, 534), (CH_LPAREN, 410), (CH_RPAREN, 352), (CH_STAR, 431), (CH_PLUS, 427),
        (CH_COMMA, 351), (CH_MINUS, 418), (CH_DOT, 510), (CH_SLASH, 259), (CH_0, 516), (CH_COLON,
        275), (CH_SEMICOLON, 464), (CH_LT, 276), (CH_EQUALS, 475), (CH_GT, 1162), (CH_A, 1005),
        (CH_B, 985), (CH_C, 862), (CH_D, 1066), (CH_F, 835), (CH_H, 830), (CH_I, 961), (CH_L,
        794), (CH_P, 854), (CH_Q, 1067), (CH_R, 799), (CH_S, 867), (CH_T, 855), (CH_U, 800),
        (CH_V, 992), (CH_W, 865), (CH_LBRACKET, 471), (CH_BACKSLASH, 7), (CH_RBRACKET, 474),
        (CH_b, 1132), (CH_c, 1109), (CH_d, 1127), (CH_f, 1084), (CH_i, 1124), (CH_m, 1086),
        (CH_p, 1143), (CH_s, 1111), (CH_t, 1135), (CH_u, 805), (CH_v, 1130), (CH_w, 1096),
        (CH_LBRACE, 468), (CH_BAR, 439), (CH_RBRACE, 469), (CH_TILDE, 413)] la of Some st
        \<Rightarrow> ADVANCE st | None \<Rightarrow> (
      if (CH_TAB \<le> la \<and> la \<le> CH_CR) \<or> la = CH_SPACE then SKIP 176 else
      if CH_1 \<le> la \<and> la \<le> CH_9 then ADVANCE 519 else
      if mozcpp_starts_identifier la then ADVANCE 1152 else END_STATE))"

definition mozcpp_lex_177 :: "bool \<Rightarrow> codepoint \<Rightarrow> lex_case" where
  "mozcpp_lex_177 eof la = (None,
      case ADVANCE_MAP [(CH_BANG, 411), (CH_DQUOTE, 543), (CH_HASH, 298), (CH_AMP, 444),
        (CH_QUOTE, 534), (CH_LPAREN, 410), (CH_RPAREN, 352), (CH_STAR, 431), (CH_PLUS, 427),
        (CH_MINUS, 418), (CH_DOT, 265), (CH_SLASH, 259), (CH_0, 516), (CH_COLON, 275),
        (CH_SEMICOLON, 464), (CH_GT, 281), (CH_A, 1005), (CH_B, 985), (CH_C, 862), (CH_D, 1066),
        (CH_F, 835), (CH_H, 830), (CH_I, 961), (CH_L, 794), (CH_P, 854), (CH_Q, 1067), (CH_R,
        799), (CH_S, 867), (CH_T, 855), (CH_U, 800), (CH_V, 992), (CH_W, 865), (CH_LBRACKET,
        471), (CH_BACKSLASH, 13), (CH_b, 1132), (CH_c, 1109), (CH_d, 1127), (CH_f, 1084), (CH_i,
        1124), (CH_m, 1086), (CH_p, 1143), (CH_s, 1111), (CH_t, 1135), (CH_u, 805), (CH_v, 1130),
        (CH_w, 1096), (CH_LBRACE, 468), (CH_TILDE, 413)] la of Some st \<Rightarrow> ADVANCE st |
        None \<Rightarrow> (
      if (CH_TAB \<le> la \<and> la \<le> CH_CR) \<or> la = CH_SPACE then SKIP 177 else
      if CH_1 \<le> la \<and> la \<le> CH_9 then ADVANCE 519 else
      if mozcpp_starts_identifier la then ADVANCE 1152 else END_STATE))"

definition mozcpp_lex_178 :: "bool \<Rightarrow> codepoint \<Rightarrow> lex_case" where
  "mozcpp_lex_178 eof la = (None,
      case ADVANCE_MAP [(CH_BANG, 411), (CH_DQUOTE, 543), (CH_HASH, 292), (CH_AMP, 445),
        (CH_QUOTE, 534), (CH_LPAREN, 410), (CH_STAR, 431), (CH_PLUS, 427), (CH_COMMA, 351),
        (CH_MINUS, 418), (CH_DOT, 319), (CH_SLASH, 259), (CH_0, 516), (CH_COLON, 275),
        (CH_SEMICOLON, 464), (CH_GT, 279), (CH_A, 1005), (CH_B, 985), (CH_C, 862), (CH_D, 1066),
        (CH_F, 835), (CH_H, 830), (CH_I, 961), (CH_L, 794), (CH_P, 854), (CH_Q, 1067), (CH_R,
        799), (CH_S, 867), (CH_T, 855), (CH_U, 800), (CH_V, 992), (CH_W, 865), (CH_LBRACKET,
        471), (CH_BACKSLASH, 11), (CH_b, 1132), (CH_c, 1109), (CH_d, 1127), (CH_f, 1084), (CH_i,
        1124), (CH_m, 1086), (CH_p, 1143), (CH_s, 1111), (CH_t, 1135), (CH_u, 805), (CH_v, 1130),
        (CH_w, 1096), (CH_LBRACE, 468), (CH_TILDE, 413)] la of Some st \<Rightarrow> ADVANCE st |
        None \<Rightarrow> (
      if (CH_TAB \<le> la \<and> la \<le> CH_CR) \<or> la = CH_SPACE then SKIP 178 else
      if CH_1 \<le> la \<and> la \<le> CH_9 then ADVANCE 519 else
      if mozcpp_starts_identifier la then ADVANCE 1152 else END_STATE))"

definition mozcpp_lex_179 :: "bool \<Rightarrow> codepoint \<Rightarrow> lex_case" where
  "mozcpp_lex_179 eof la = (None,
      case ADVANCE_MAP [(CH_BANG, 411), (CH_DQUOTE, 543), (CH_AMP, 445), (CH_QUOTE, 534),
        (CH_LPAREN, 410), (CH_RPAREN, 352), (CH_STAR, 431), (CH_PLUS, 427), (CH_COMMA, 351),
        (CH_MINUS, 418), (CH_DOT, 509), (CH_SLASH, 259), (CH_0, 516), (CH_COLON, 275),
        (CH_SEMICOLON, 464), (CH_LT, 455), (CH_EQUALS, 475), (CH_GT, 1162), (CH_A, 1005), (CH_B,
        985), (CH_C, 862), (CH_D, 1066), (CH_F, 835), (CH_H, 830), (CH_I, 961), (CH_L, 794),
        (CH_P, 854), (CH_Q, 1067), (CH_R, 799), (CH_S, 867), (CH_T, 855), (CH_U, 800), (CH_V,
        992), (CH_W, 865), (CH_LBRACKET, 470), (CH_BACKSLASH, 25), (CH_b, 1132), (CH_c, 1109),
        (CH_d, 1127), (CH_f, 1084), (CH_i, 1124), (CH_m, 1086), (CH_p, 1143), (CH_s, 1111),
        (CH_t, 1135), (CH_u, 805), (CH_v, 1130), (CH_w, 1096), (CH_LBRACE, 468), (CH_TILDE, 413)]
        la of Some st \<Rightarrow> ADVANCE st | None \<Rightarrow> (
      if (CH_TAB \<le> la \<and> la \<le> CH_CR) \<or> la = CH_SPACE then SKIP 179 else
      if CH_1 \<le> la \<and> la \<le> CH_9 then ADVANCE 519 else
      if mozcpp_starts_identifier la then ADVANCE 1152 else END_STATE))"

definition mozcpp_lex_180 :: "bool \<Rightarrow> codepoint \<Rightarrow> lex_case" where
  "mozcpp_lex_180 eof la = (None,
      case ADVANCE_MAP [(CH_BANG, 411), (CH_DQUOTE, 543), (CH_AMP, 444), (CH_QUOTE, 534),
        (CH_LPAREN, 410), (CH_RPAREN, 352), (CH_STAR, 431), (CH_PLUS, 427), (CH_COMMA, 351),
        (CH_MINUS, 418), (CH_DOT, 509), (CH_SLASH, 259), (CH_0, 516), (CH_COLON, 492),
        (CH_SEMICOLON, 464), (CH_LT, 455), (CH_EQUALS, 475), (CH_GT, 1162), (CH_A, 1005), (CH_B,
        985), (CH_C, 862), (CH_D, 1066), (CH_F, 835), (CH_H, 830), (CH_I, 961), (CH_L, 794),
        (CH_P, 854), (CH_Q, 1067), (CH_R, 799), (CH_S, 867), (CH_T, 855), (CH_U, 800), (CH_V,
        992), (CH_W, 865), (CH_LBRACKET, 470), (CH_BACKSLASH, 31), (CH_RBRACKET, 474), (CH_b,
        1132), (CH_c, 1109), (CH_d, 1127), (CH_f, 1084), (CH_i, 1124), (CH_m, 1086), (CH_p,
        1143), (CH_s, 1111), (CH_t, 1135), (CH_u, 805), (CH_v, 1130), (CH_w, 1096), (CH_LBRACE,
        468), (CH_RBRACE, 469), (CH_TILDE, 413)] la of Some st \<Rightarrow> ADVANCE st | None
        \<Rightarrow> (
      if (CH_TAB \<le> la \<and> la \<le> CH_CR) \<or> la = CH_SPACE then SKIP 180 else
      if CH_1 \<le> la \<and> la \<le> CH_9 then ADVANCE 519 else
      if mozcpp_starts_identifier la then ADVANCE 1152 else END_STATE))"

definition mozcpp_lex_181 :: "bool \<Rightarrow> codepoint \<Rightarrow> lex_case" where
  "mozcpp_lex_181 eof la = (None,
      case ADVANCE_MAP [(CH_BANG, 411), (CH_QUOTE, 534), (CH_LPAREN, 410), (CH_RPAREN, 352),
        (CH_PLUS, 429), (CH_MINUS, 422), (CH_DOT, 319), (CH_SLASH, 259), (CH_0, 516), (CH_L,
        817), (CH_U, 818), (CH_BACKSLASH, 99), (CH_u, 819), (CH_TILDE, 413)] la of Some st
        \<Rightarrow> ADVANCE st | None \<Rightarrow> (
      if (CH_TAB \<le> la \<and> la \<le> CH_CR) \<or> la = CH_SPACE then SKIP 181 else
      if CH_1 \<le> la \<and> la \<le> CH_9 then ADVANCE 519 else
      if mozcpp_starts_identifier la then ADVANCE 1152 else END_STATE))"

definition mozcpp_lex_182 :: "bool \<Rightarrow> codepoint \<Rightarrow> lex_case" where
  "mozcpp_lex_182 eof la = (None,
      case ADVANCE_MAP [(CH_BANG, 277), (CH_DQUOTE, 543), (CH_HASH, 299), (CH_PERCENT, 436),
        (CH_AMP, 446), (CH_LPAREN, 410), (CH_RPAREN, 352), (CH_STAR, 432), (CH_PLUS, 428),
        (CH_COMMA, 351), (CH_MINUS, 420), (CH_DOT, 507), (CH_SLASH, 434), (CH_COLON, 492),
        (CH_SEMICOLON, 464), (CH_LT, 456), (CH_EQUALS, 476), (CH_GT, 451), (CH_QMARK, 493),
        (CH_L, 796), (CH_R, 799), (CH_U, 803), (CH_LBRACKET, 470), (CH_BACKSLASH, 59),
        (CH_RBRACKET, 474), (CH_CARET, 443), (CH_u, 806), (CH_LBRACE, 468), (CH_BAR, 440),
        (CH_RBRACE, 469)] la of Some st \<Rightarrow> ADVANCE st | None \<Rightarrow> (
      if (CH_TAB \<le> la \<and> la \<le> CH_CR) \<or> la = CH_SPACE then SKIP 182 else
      if mozcpp_starts_identifier la then ADVANCE 1152 else END_STATE))"

definition mozcpp_lex_183 :: "bool \<Rightarrow> codepoint \<Rightarrow> lex_case" where
  "mozcpp_lex_183 eof la = (None,
      case ADVANCE_MAP [(CH_BANG, 277), (CH_DQUOTE, 543), (CH_HASH, 299), (CH_PERCENT, 436),
        (CH_AMP, 446), (CH_LPAREN, 410), (CH_RPAREN, 352), (CH_STAR, 432), (CH_PLUS, 428),
        (CH_COMMA, 351), (CH_MINUS, 420), (CH_DOT, 507), (CH_SLASH, 434), (CH_COLON, 491),
        (CH_SEMICOLON, 464), (CH_LT, 456), (CH_EQUALS, 476), (CH_GT, 451), (CH_QMARK, 493),
        (CH_L, 796), (CH_R, 799), (CH_U, 803), (CH_LBRACKET, 470), (CH_BACKSLASH, 69),
        (CH_RBRACKET, 474), (CH_CARET, 443), (CH_u, 806), (CH_BAR, 440), (CH_RBRACE, 469)] la of
        Some st \<Rightarrow> ADVANCE st | None \<Rightarrow> (
      if (CH_TAB \<le> la \<and> la \<le> CH_CR) \<or> la = CH_SPACE then SKIP 183 else
      if mozcpp_starts_identifier la then ADVANCE 1152 else END_STATE))"

definition mozcpp_lex_184 :: "bool \<Rightarrow> codepoint \<Rightarrow> lex_case" where
  "mozcpp_lex_184 eof la = (None,
      case ADVANCE_MAP [(CH_BANG, 277), (CH_DQUOTE, 543), (CH_HASH, 299), (CH_PERCENT, 436),
        (CH_AMP, 446), (CH_LPAREN, 410), (CH_RPAREN, 352), (CH_STAR, 432), (CH_PLUS, 428),
        (CH_COMMA, 351), (CH_MINUS, 420), (CH_DOT, 507), (CH_SLASH, 434), (CH_COLON, 491),
        (CH_SEMICOLON, 464), (CH_LT, 456), (CH_EQUALS, 476), (CH_GT, 451), (CH_QMARK, 493),
        (CH_L, 1173), (CH_R, 1174), (CH_U, 1175), (CH_LBRACKET, 470), (CH_BACKSLASH, 69),
        (CH_RBRACKET, 474), (CH_CARET, 443), (CH_u, 1176), (CH_BAR, 440), (CH_RBRACE, 469)] la of
        Some st \<Rightarrow> ADVANCE st | None \<Rightarrow> (
      if (CH_TAB \<le> la \<and> la \<le> CH_CR) \<or> la = CH_SPACE then SKIP 183 else
      if (CH_A \<le> la \<and> la \<le> CH_UNDERSCORE) \<or> (CH_a \<le> la \<and> la \<le> CH_z)
        then ADVANCE 1182 else
      if mozcpp_starts_identifier la then ADVANCE 1152 else END_STATE))"

definition mozcpp_lex_185 :: "bool \<Rightarrow> codepoint \<Rightarrow> lex_case" where
  "mozcpp_lex_185 eof la = (None,
      case ADVANCE_MAP [(CH_BANG, 277), (CH_DQUOTE, 543), (CH_HASH, 299), (CH_PERCENT, 435),
        (CH_AMP, 445), (CH_LPAREN, 410), (CH_RPAREN, 352), (CH_STAR, 431), (CH_PLUS, 425),
        (CH_COMMA, 351), (CH_MINUS, 421), (CH_DOT, 507), (CH_SLASH, 433), (CH_COLON, 491),
        (CH_SEMICOLON, 464), (CH_LT, 458), (CH_EQUALS, 278), (CH_GT, 450), (CH_QMARK, 493),
        (CH_L, 796), (CH_R, 799), (CH_U, 803), (CH_LBRACKET, 470), (CH_BACKSLASH, 138),
        (CH_RBRACKET, 474), (CH_CARET, 442), (CH_u, 806), (CH_BAR, 441), (CH_RBRACE, 469)] la of
        Some st \<Rightarrow> ADVANCE st | None \<Rightarrow> (
      if (CH_TAB \<le> la \<and> la \<le> CH_CR) \<or> la = CH_SPACE then SKIP 185 else
      if mozcpp_starts_identifier la then ADVANCE 1152 else END_STATE))"

definition mozcpp_lex_186 :: "bool \<Rightarrow> codepoint \<Rightarrow> lex_case" where
  "mozcpp_lex_186 eof la = (None,
      case ADVANCE_MAP [(CH_BANG, 277), (CH_DQUOTE, 543), (CH_HASH, 299), (CH_PERCENT, 435),
        (CH_AMP, 445), (CH_LPAREN, 410), (CH_RPAREN, 352), (CH_STAR, 431), (CH_PLUS, 425),
        (CH_COMMA, 351), (CH_MINUS, 421), (CH_DOT, 507), (CH_SLASH, 433), (CH_COLON, 491),
        (CH_SEMICOLON, 464), (CH_LT, 458), (CH_EQUALS, 278), (CH_GT, 450), (CH_QMARK, 493),
        (CH_L, 1173), (CH_R, 1174), (CH_U, 1175), (CH_LBRACKET, 470), (CH_BACKSLASH, 138),
        (CH_RBRACKET, 474), (CH_CARET, 442), (CH_u, 1176), (CH_BAR, 441), (CH_RBRACE, 469)] la of
        Some st \<Rightarrow> ADVANCE st | None \<Rightarrow> (
      if (CH_TAB \<le> la \<and> la \<le> CH_CR) \<or> la = CH_SPACE then SKIP 185 else
      if (CH_A \<le> la \<and> la \<le> CH_UNDERSCORE) \<or> (CH_a \<le> la \<and> la \<le> CH_z)
        then ADVANCE 1182 else
      if mozcpp_starts_identifier la then ADVANCE 1152 else END_STATE))"

definition mozcpp_lex_187 :: "bool \<Rightarrow> codepoint \<Rightarrow> lex_case" where
  "mozcpp_lex_187 eof la = (None,
      case ADVANCE_MAP [(CH_BANG, 277), (CH_DQUOTE, 543), (CH_PERCENT, 436), (CH_AMP, 446),
        (CH_LPAREN, 410), (CH_RPAREN, 352), (CH_STAR, 432), (CH_PLUS, 428), (CH_COMMA, 351),
        (CH_MINUS, 419), (CH_DOT, 507), (CH_SLASH, 434), (CH_COLON, 275), (CH_LT, 456),
        (CH_EQUALS, 476), (CH_GT, 451), (CH_QMARK, 493), (CH_L, 796), (CH_R, 799), (CH_U, 803),
        (CH_LBRACKET, 471), (CH_BACKSLASH, 27), (CH_CARET, 443), (CH_u, 806), (CH_LBRACE, 468),
        (CH_BAR, 440), (CH_TILDE, 413)] la of Some st \<Rightarrow> ADVANCE st | None
        \<Rightarrow> (
      if (CH_TAB \<le> la \<and> la \<le> CH_CR) \<or> la = CH_SPACE then SKIP 187 else
      if mozcpp_starts_identifier la then ADVANCE 1152 else END_STATE))"

definition mozcpp_lex_188 :: "bool \<Rightarrow> codepoint \<Rightarrow> lex_case" where
  "mozcpp_lex_188 eof la = (None,
      case ADVANCE_MAP [(CH_BANG, 277), (CH_DQUOTE, 543), (CH_PERCENT, 436), (CH_AMP, 446),
        (CH_LPAREN, 410), (CH_RPAREN, 352), (CH_STAR, 432), (CH_PLUS, 428), (CH_COMMA, 351),
        (CH_MINUS, 419), (CH_DOT, 507), (CH_SLASH, 434), (CH_COLON, 275), (CH_LT, 456),
        (CH_EQUALS, 476), (CH_GT, 451), (CH_QMARK, 493), (CH_L, 796), (CH_R, 799), (CH_U, 803),
        (CH_LBRACKET, 470), (CH_BACKSLASH, 53), (CH_CARET, 443), (CH_u, 806), (CH_LBRACE, 468),
        (CH_BAR, 440)] la of Some st \<Rightarrow> ADVANCE st | None \<Rightarrow> (
      if (CH_TAB \<le> la \<and> la \<le> CH_CR) \<or> la = CH_SPACE then SKIP 188 else
      if mozcpp_starts_identifier la then ADVANCE 1152 else END_STATE))"

definition mozcpp_lex_189 :: "bool \<Rightarrow> codepoint \<Rightarrow> lex_case" where
  "mozcpp_lex_189 eof la = (None,
      case ADVANCE_MAP [(CH_BANG, 277), (CH_DQUOTE, 543), (CH_PERCENT, 436), (CH_AMP, 446),
        (CH_LPAREN, 410), (CH_RPAREN, 352), (CH_STAR, 432), (CH_PLUS, 428), (CH_COMMA, 351),
        (CH_MINUS, 419), (CH_DOT, 507), (CH_SLASH, 434), (CH_LT, 456), (CH_EQUALS, 476), (CH_GT,
        451), (CH_QMARK, 493), (CH_L, 796), (CH_R, 799), (CH_U, 803), (CH_LBRACKET, 470),
        (CH_BACKSLASH, 77), (CH_CARET, 443), (CH_u, 806), (CH_BAR, 440)] la of Some st
        \<Rightarrow> ADVANCE st | None \<Rightarrow> (
      if (CH_TAB \<le> la \<and> la \<le> CH_CR) \<or> la = CH_SPACE then SKIP 189 else
      if mozcpp_starts_identifier la then ADVANCE 1152 else END_STATE))"

definition mozcpp_lex_190 :: "bool \<Rightarrow> codepoint \<Rightarrow> lex_case" where
  "mozcpp_lex_190 eof la = (None,
      case ADVANCE_MAP [(CH_BANG, 277), (CH_DQUOTE, 543), (CH_PERCENT, 436), (CH_AMP, 446),
        (CH_LPAREN, 410), (CH_RPAREN, 352), (CH_STAR, 432), (CH_PLUS, 428), (CH_COMMA, 351),
        (CH_MINUS, 419), (CH_DOT, 507), (CH_SLASH, 434), (CH_LT, 456), (CH_EQUALS, 476), (CH_GT,
        451), (CH_QMARK, 493), (CH_L, 1173), (CH_R, 1174), (CH_U, 1175), (CH_LBRACKET, 470),
        (CH_BACKSLASH, 77), (CH_CARET, 443), (CH_u, 1176), (CH_BAR, 440)] la of Some st
        \<Rightarrow> ADVANCE st | None \<Rightarrow> (
      if (CH_TAB \<le> la \<and> la \<le> CH_CR) \<or> la = CH_SPACE then SKIP 189 else
      if (CH_A \<le> la \<and> la \<le> CH_Z) \<or> la = CH_UNDERSCORE \<or> (CH_a \<le> la
        \<and> la \<le> CH_z) then ADVANCE 1182 else
      if mozcpp_starts_identifier la then ADVANCE 1152 else END_STATE))"

definition mozcpp_lex_191 :: "bool \<Rightarrow> codepoint \<Rightarrow> lex_case" where
  "mozcpp_lex_191 eof la = (None,
      case ADVANCE_MAP [(CH_BANG, 277), (CH_DQUOTE, 543), (CH_PERCENT, 436), (CH_AMP, 446),
        (CH_LPAREN, 410), (CH_RPAREN, 352), (CH_STAR, 432), (CH_PLUS, 428), (CH_COMMA, 351),
        (CH_MINUS, 420), (CH_DOT, 507), (CH_SLASH, 434), (CH_COLON, 492), (CH_SEMICOLON, 464),
        (CH_LT, 456), (CH_EQUALS, 476), (CH_GT, 451), (CH_QMARK, 493), (CH_L, 796), (CH_R, 799),
        (CH_U, 803), (CH_LBRACKET, 471), (CH_BACKSLASH, 23), (CH_CARET, 443), (CH_u, 806),
        (CH_LBRACE, 468), (CH_BAR, 440), (CH_RBRACE, 469), (CH_TILDE, 413)] la of Some st
        \<Rightarrow> ADVANCE st | None \<Rightarrow> (
      if (CH_TAB \<le> la \<and> la \<le> CH_CR) \<or> la = CH_SPACE then SKIP 191 else
      if mozcpp_starts_identifier la then ADVANCE 1152 else END_STATE))"

definition mozcpp_lex_192 :: "bool \<Rightarrow> codepoint \<Rightarrow> lex_case" where
  "mozcpp_lex_192 eof la = (None,
      case ADVANCE_MAP [(CH_BANG, 277), (CH_DQUOTE, 543), (CH_PERCENT, 436), (CH_AMP, 446),
        (CH_LPAREN, 410), (CH_STAR, 432), (CH_PLUS, 428), (CH_COMMA, 351), (CH_MINUS, 420),
        (CH_DOT, 507), (CH_SLASH, 434), (CH_COLON, 275), (CH_LT, 456), (CH_EQUALS, 476), (CH_GT,
        1162), (CH_QMARK, 493), (CH_L, 796), (CH_R, 799), (CH_U, 803), (CH_LBRACKET, 470),
        (CH_BACKSLASH, 57), (CH_CARET, 443), (CH_u, 806), (CH_LBRACE, 468), (CH_BAR, 440)] la of
        Some st \<Rightarrow> ADVANCE st | None \<Rightarrow> (
      if (CH_TAB \<le> la \<and> la \<le> CH_CR) \<or> la = CH_SPACE then SKIP 192 else
      if mozcpp_starts_identifier la then ADVANCE 1152 else END_STATE))"

definition mozcpp_lex_193 :: "bool \<Rightarrow> codepoint \<Rightarrow> lex_case" where
  "mozcpp_lex_193 eof la = (None,
      case ADVANCE_MAP [(CH_BANG, 277), (CH_DQUOTE, 543), (CH_PERCENT, 436), (CH_AMP, 446),
        (CH_LPAREN, 410), (CH_STAR, 432), (CH_PLUS, 428), (CH_COMMA, 351), (CH_MINUS, 420),
        (CH_DOT, 507), (CH_SLASH, 434), (CH_LT, 456), (CH_EQUALS, 476), (CH_GT, 1162), (CH_QMARK,
        493), (CH_L, 796), (CH_R, 799), (CH_U, 803), (CH_LBRACKET, 470), (CH_BACKSLASH, 79),
        (CH_CARET, 443), (CH_u, 806), (CH_BAR, 440)] la of Some st \<Rightarrow> ADVANCE st |
        None \<Rightarrow> (
      if (CH_TAB \<le> la \<and> la \<le> CH_CR) \<or> la = CH_SPACE then SKIP 193 else
      if mozcpp_starts_identifier la then ADVANCE 1152 else END_STATE))"

definition mozcpp_lex_194 :: "bool \<Rightarrow> codepoint \<Rightarrow> lex_case" where
  "mozcpp_lex_194 eof la = (None,
      case ADVANCE_MAP [(CH_BANG, 277), (CH_DQUOTE, 543), (CH_PERCENT, 436), (CH_AMP, 446),
        (CH_LPAREN, 410), (CH_STAR, 432), (CH_PLUS, 428), (CH_COMMA, 351), (CH_MINUS, 420),
        (CH_DOT, 507), (CH_SLASH, 434), (CH_LT, 456), (CH_EQUALS, 476), (CH_GT, 1162), (CH_QMARK,
        493), (CH_L, 1173), (CH_R, 1174), (CH_U, 1175), (CH_LBRACKET, 470), (CH_BACKSLASH, 79),
        (CH_CARET, 443), (CH_u, 1176), (CH_BAR, 440)] la of Some st \<Rightarrow> ADVANCE st |
        None \<Rightarrow> (
      if (CH_TAB \<le> la \<and> la \<le> CH_CR) \<or> la = CH_SPACE then SKIP 193 else
      if (CH_A \<le> la \<and> la \<le> CH_Z) \<or> la = CH_UNDERSCORE \<or> (CH_a \<le> la
        \<and> la \<le> CH_z) then ADVANCE 1182 else
      if mozcpp_starts_identifier la then ADVANCE 1152 else END_STATE))"

definition mozcpp_lex_195 :: "bool \<Rightarrow> codepoint \<Rightarrow> lex_case" where
  "mozcpp_lex_195 eof la = (None,
      case ADVANCE_MAP [(CH_BANG, 277), (CH_DQUOTE, 543), (CH_PERCENT, 435), (CH_AMP, 445),
        (CH_LPAREN, 410), (CH_STAR, 431), (CH_PLUS, 425), (CH_COMMA, 351), (CH_MINUS, 421),
        (CH_DOT, 507), (CH_SLASH, 433), (CH_LT, 458), (CH_EQUALS, 278), (CH_GT, 1162), (CH_QMARK,
        493), (CH_L, 796), (CH_R, 799), (CH_U, 803), (CH_LBRACKET, 470), (CH_BACKSLASH, 142),
        (CH_CARET, 442), (CH_u, 806), (CH_BAR, 441)] la of Some st \<Rightarrow> ADVANCE st |
        None \<Rightarrow> (
      if (CH_TAB \<le> la \<and> la \<le> CH_CR) \<or> la = CH_SPACE then SKIP 195 else
      if mozcpp_starts_identifier la then ADVANCE 1152 else END_STATE))"

definition mozcpp_lex_196 :: "bool \<Rightarrow> codepoint \<Rightarrow> lex_case" where
  "mozcpp_lex_196 eof la = (None,
      case ADVANCE_MAP [(CH_BANG, 277), (CH_DQUOTE, 543), (CH_PERCENT, 435), (CH_AMP, 445),
        (CH_LPAREN, 410), (CH_STAR, 431), (CH_PLUS, 425), (CH_COMMA, 351), (CH_MINUS, 421),
        (CH_DOT, 507), (CH_SLASH, 433), (CH_LT, 458), (CH_EQUALS, 278), (CH_GT, 1162), (CH_QMARK,
        493), (CH_L, 1173), (CH_R, 1174), (CH_U, 1175), (CH_LBRACKET, 470), (CH_BACKSLASH, 142),
        (CH_CARET, 442), (CH_u, 1176), (CH_BAR, 441)] la of Some st \<Rightarrow> ADVANCE st |
        None \<Rightarrow> (
      if (CH_TAB \<le> la \<and> la \<le> CH_CR) \<or> la = CH_SPACE then SKIP 195 else
      if (CH_A \<le> la \<and> la \<le> CH_Z) \<or> la = CH_UNDERSCORE \<or> (CH_a \<le> la
        \<and> la \<le> CH_z) then ADVANCE 1182 else
      if mozcpp_starts_identifier la then ADVANCE 1152 else END_STATE))"

definition mozcpp_lex_197 :: "bool \<Rightarrow> codepoint \<Rightarrow> lex_case" where
  "mozcpp_lex_197 eof la = (None,
      case ADVANCE_MAP [(CH_BANG, 277), (CH_HASH, 310), (CH_PERCENT, 436), (CH_AMP, 446),
        (CH_LPAREN, 410), (CH_RPAREN, 352), (CH_STAR, 432), (CH_PLUS, 428), (CH_COMMA, 351),
        (CH_MINUS, 419), (CH_DOT, 507), (CH_SLASH, 434), (CH_COLON, 275), (CH_SEMICOLON, 464),
        (CH_LT, 456), (CH_EQUALS, 476), (CH_GT, 451), (CH_QMARK, 493), (CH_LBRACKET, 471),
        (CH_BACKSLASH, 35), (CH_CARET, 443), (CH_LBRACE, 468), (CH_BAR, 440), (CH_RBRACE, 469),
        (CH_TILDE, 413)] la of Some st \<Rightarrow> ADVANCE st | None \<Rightarrow> (
      if (CH_TAB \<le> la \<and> la \<le> CH_CR) \<or> la = CH_SPACE then SKIP 197 else
      if mozcpp_starts_identifier la then ADVANCE 1152 else END_STATE))"

definition mozcpp_lex_198 :: "bool \<Rightarrow> codepoint \<Rightarrow> lex_case" where
  "mozcpp_lex_198 eof la = (None,
      case ADVANCE_MAP [(CH_BANG, 277), (CH_HASH, 295), (CH_PERCENT, 435), (CH_AMP, 445),
        (CH_LPAREN, 410), (CH_RPAREN, 352), (CH_STAR, 431), (CH_PLUS, 424), (CH_COMMA, 351),
        (CH_MINUS, 414), (CH_SLASH, 433), (CH_COLON, 275), (CH_SEMICOLON, 464), (CH_LT, 459),
        (CH_EQUALS, 278), (CH_GT, 450), (CH_A, 1005), (CH_B, 985), (CH_C, 862), (CH_D, 1066),
        (CH_F, 950), (CH_H, 830), (CH_I, 961), (CH_L, 840), (CH_P, 854), (CH_Q, 1067), (CH_S,
        867), (CH_T, 857), (CH_U, 863), (CH_V, 992), (CH_W, 865), (CH_LBRACKET, 471),
        (CH_BACKSLASH, 17), (CH_CARET, 442), (CH_b, 1132), (CH_c, 1109), (CH_d, 1127), (CH_f,
        1122), (CH_i, 1124), (CH_m, 1086), (CH_p, 1143), (CH_s, 1111), (CH_u, 1117), (CH_v,
        1130), (CH_w, 1096), (CH_BAR, 441), (CH_RBRACE, 469), (CH_TILDE, 413)] la of Some st
        \<Rightarrow> ADVANCE st | None \<Rightarrow> (
      if (CH_TAB \<le> la \<and> la \<le> CH_CR) \<or> la = CH_SPACE then SKIP 198 else
      if mozcpp_starts_identifier la then ADVANCE 1152 else END_STATE))"

definition mozcpp_lex_199 :: "bool \<Rightarrow> codepoint \<Rightarrow> lex_case" where
  "mozcpp_lex_199 eof la = (None,
      case ADVANCE_MAP [(CH_BANG, 277), (CH_HASH, 299), (CH_PERCENT, 436), (CH_AMP, 446),
        (CH_LPAREN, 410), (CH_RPAREN, 352), (CH_STAR, 432), (CH_PLUS, 428), (CH_COMMA, 351),
        (CH_MINUS, 420), (CH_DOT, 507), (CH_SLASH, 434), (CH_0, 1163), (CH_COLON, 492),
        (CH_SEMICOLON, 464), (CH_LT, 456), (CH_EQUALS, 476), (CH_GT, 451), (CH_QMARK, 493),
        (CH_LBRACKET, 471), (CH_BACKSLASH, 29), (CH_RBRACKET, 474), (CH_CARET, 443), (CH_LBRACE,
        468), (CH_BAR, 440), (CH_RBRACE, 469), (CH_TILDE, 413)] la of Some st \<Rightarrow>
        ADVANCE st | None \<Rightarrow> (
      if (CH_TAB \<le> la \<and> la \<le> CH_CR) \<or> la = CH_SPACE then SKIP 199 else
      if mozcpp_starts_identifier la then ADVANCE 1152 else END_STATE))"

definition mozcpp_lex_200 :: "bool \<Rightarrow> codepoint \<Rightarrow> lex_case" where
  "mozcpp_lex_200 eof la = (None,
      case ADVANCE_MAP [(CH_BANG, 277), (CH_HASH, 299), (CH_PERCENT, 436), (CH_AMP, 446),
        (CH_LPAREN, 410), (CH_RPAREN, 352), (CH_STAR, 432), (CH_PLUS, 428), (CH_COMMA, 351),
        (CH_MINUS, 420), (CH_DOT, 507), (CH_SLASH, 434), (CH_COLON, 492), (CH_SEMICOLON, 464),
        (CH_LT, 456), (CH_EQUALS, 476), (CH_GT, 451), (CH_QMARK, 493), (CH_LBRACKET, 470),
        (CH_BACKSLASH, 128), (CH_RBRACKET, 474), (CH_CARET, 443), (CH_LBRACE, 468), (CH_BAR,
        440), (CH_RBRACE, 469)] la of Some st \<Rightarrow> ADVANCE st | None \<Rightarrow> (
      if (CH_TAB \<le> la \<and> la \<le> CH_CR) \<or> la = CH_SPACE then SKIP 200 else
      if mozcpp_starts_identifier la then ADVANCE 1152 else END_STATE))"

definition mozcpp_lex_201 :: "bool \<Rightarrow> codepoint \<Rightarrow> lex_case" where
  "mozcpp_lex_201 eof la = (None,
      case ADVANCE_MAP [(CH_BANG, 277), (CH_HASH, 299), (CH_PERCENT, 436), (CH_AMP, 446),
        (CH_LPAREN, 410), (CH_RPAREN, 352), (CH_STAR, 432), (CH_PLUS, 428), (CH_COMMA, 351),
        (CH_MINUS, 420), (CH_DOT, 507), (CH_SLASH, 434), (CH_COLON, 491), (CH_SEMICOLON, 464),
        (CH_LT, 456), (CH_EQUALS, 476), (CH_GT, 451), (CH_QMARK, 493), (CH_A, 1005), (CH_B, 985),
        (CH_C, 862), (CH_D, 1066), (CH_F, 950), (CH_H, 830), (CH_I, 961), (CH_L, 840), (CH_P,
        854), (CH_Q, 1067), (CH_S, 867), (CH_T, 857), (CH_U, 863), (CH_V, 992), (CH_W, 865),
        (CH_LBRACKET, 470), (CH_BACKSLASH, 55), (CH_RBRACKET, 474), (CH_CARET, 443), (CH_b,
        1132), (CH_c, 1109), (CH_d, 1127), (CH_f, 1122), (CH_i, 1124), (CH_m, 1086), (CH_p,
        1143), (CH_s, 1111), (CH_u, 1117), (CH_v, 1130), (CH_w, 1096), (CH_LBRACE, 468), (CH_BAR,
        440), (CH_RBRACE, 469)] la of Some st \<Rightarrow> ADVANCE st | None \<Rightarrow> (
      if (CH_TAB \<le> la \<and> la \<le> CH_CR) \<or> la = CH_SPACE then SKIP 201 else
      if mozcpp_starts_identifier la then ADVANCE 1152 else END_STATE))"

definition mozcpp_lex_202 :: "bool \<Rightarrow> codepoint \<Rightarrow> lex_case" where
  "mozcpp_lex_202 eof la = (None,
      case ADVANCE_MAP [(CH_BANG, 277), (CH_HASH, 299), (CH_PERCENT, 436), (CH_AMP, 446),
        (CH_LPAREN, 410), (CH_RPAREN, 352), (CH_STAR, 432), (CH_PLUS, 428), (CH_COMMA, 351),
        (CH_MINUS, 420), (CH_DOT, 507), (CH_SLASH, 434), (CH_COLON, 491), (CH_SEMICOLON, 464),
        (CH_LT, 456), (CH_EQUALS, 476), (CH_GT, 451), (CH_QMARK, 493), (CH_LBRACKET, 471),
        (CH_BACKSLASH, 43), (CH_RBRACKET, 474), (CH_CARET, 443), (CH_LBRACE, 468), (CH_BAR, 440),
        (CH_RBRACE, 469)] la of Some st \<Rightarrow> ADVANCE st | None \<Rightarrow> (
      if (CH_TAB \<le> la \<and> la \<le> CH_CR) \<or> la = CH_SPACE then SKIP 202 else
      if mozcpp_starts_identifier la then ADVANCE 1152 else END_STATE))"

definition mozcpp_lex_203 :: "bool \<Rightarrow> codepoint \<Rightarrow> lex_case" where
  "mozcpp_lex_203 eof la = (None,
      case ADVANCE_MAP [(CH_BANG, 277), (CH_HASH, 299), (CH_PERCENT, 436), (CH_AMP, 446),
        (CH_LPAREN, 410), (CH_RPAREN, 352), (CH_STAR, 432), (CH_PLUS, 428), (CH_COMMA, 351),
        (CH_MINUS, 420), (CH_DOT, 507), (CH_SLASH, 434), (CH_COLON, 491), (CH_SEMICOLON, 464),
        (CH_LT, 456), (CH_EQUALS, 476), (CH_GT, 451), (CH_QMARK, 493), (CH_LBRACKET, 470),
        (CH_BACKSLASH, 150), (CH_RBRACKET, 474), (CH_CARET, 443), (CH_LBRACE, 468), (CH_BAR,
        440), (CH_RBRACE, 469)] la of Some st \<Rightarrow> ADVANCE st | None \<Rightarrow> (
      if (CH_TAB \<le> la \<and> la \<le> CH_CR) \<or> la = CH_SPACE then SKIP 203 else
      if mozcpp_starts_identifier la then ADVANCE 1152 else END_STATE))"

definition mozcpp_lex_204 :: "bool \<Rightarrow> codepoint \<Rightarrow> lex_case" where
  "mozcpp_lex_204 eof la = (None,
      case ADVANCE_MAP [(CH_BANG, 277), (CH_HASH, 299), (CH_PERCENT, 436), (CH_AMP, 446),
        (CH_LPAREN, 410), (CH_RPAREN, 352), (CH_STAR, 432), (CH_PLUS, 428), (CH_COMMA, 351),
        (CH_MINUS, 420), (CH_DOT, 507), (CH_SLASH, 434), (CH_COLON, 491), (CH_SEMICOLON, 464),
        (CH_LT, 456), (CH_EQUALS, 476), (CH_GT, 451), (CH_QMARK, 493), (CH_LBRACKET, 470),
        (CH_BACKSLASH, 144), (CH_RBRACKET, 474), (CH_CARET, 443), (CH_BAR, 440), (CH_RBRACE,
        469)] la of Some st \<Rightarrow> ADVANCE st | None \<Rightarrow> (
      if (CH_TAB \<le> la \<and> la \<le> CH_CR) \<or> la = CH_SPACE then SKIP 205 else
      if (CH_A \<le> la \<and> la \<le> CH_UNDERSCORE) \<or> (CH_a \<le> la \<and> la \<le> CH_z)
        then ADVANCE 1182 else
      if mozcpp_starts_identifier la then ADVANCE 1152 else END_STATE))"

definition mozcpp_lex_205 :: "bool \<Rightarrow> codepoint \<Rightarrow> lex_case" where
  "mozcpp_lex_205 eof la = (None,
      case ADVANCE_MAP [(CH_BANG, 277), (CH_HASH, 299), (CH_PERCENT, 436), (CH_AMP, 446),
        (CH_LPAREN, 410), (CH_RPAREN, 352), (CH_STAR, 432), (CH_PLUS, 428), (CH_COMMA, 351),
        (CH_MINUS, 420), (CH_DOT, 507), (CH_SLASH, 434), (CH_COLON, 491), (CH_SEMICOLON, 464),
        (CH_LT, 456), (CH_EQUALS, 476), (CH_GT, 451), (CH_QMARK, 493), (CH_LBRACKET, 470),
        (CH_BACKSLASH, 144), (CH_RBRACKET, 474), (CH_CARET, 443), (CH_BAR, 440), (CH_RBRACE,
        469)] la of Some st \<Rightarrow> ADVANCE st | None \<Rightarrow> (
      if (CH_TAB \<le> la \<and> la \<le> CH_CR) \<or> la = CH_SPACE then SKIP 205 else
      if mozcpp_starts_identifier la then ADVANCE 1152 else END_STATE))"

definition mozcpp_lex_206 :: "bool \<Rightarrow> codepoint \<Rightarrow> lex_case" where
  "mozcpp_lex_206 eof la = (None,
      case ADVANCE_MAP [(CH_BANG, 277), (CH_HASH, 299), (CH_PERCENT, 436), (CH_AMP, 446),
        (CH_LPAREN, 410), (CH_RPAREN, 352), (CH_STAR, 432), (CH_PLUS, 428), (CH_COMMA, 351),
        (CH_MINUS, 420), (CH_DOT, 507), (CH_SLASH, 434), (CH_COLON, 491), (CH_SEMICOLON, 464),
        (CH_LT, 456), (CH_EQUALS, 476), (CH_GT, 451), (CH_QMARK, 493), (CH_LBRACKET, 473),
        (CH_BACKSLASH, 83), (CH_RBRACKET, 474), (CH_CARET, 443), (CH_BAR, 440), (CH_RBRACE, 469)]
        la of Some st \<Rightarrow> ADVANCE st | None \<Rightarrow> (
      if (CH_TAB \<le> la \<and> la \<le> CH_CR) \<or> la = CH_SPACE then SKIP 206 else
      if mozcpp_starts_identifier la then ADVANCE 1152 else END_STATE))"

definition mozcpp_lex_207 :: "bool \<Rightarrow> codepoint \<Rightarrow> lex_case" where
  "mozcpp_lex_207 eof la = (None,
      case ADVANCE_MAP [(CH_BANG, 277), (CH_HASH, 299), (CH_PERCENT, 435), (CH_AMP, 445),
        (CH_LPAREN, 410), (CH_RPAREN, 352), (CH_STAR, 431), (CH_PLUS, 425), (CH_COMMA, 351),
        (CH_MINUS, 421), (CH_DOT, 507), (CH_SLASH, 433), (CH_COLON, 492), (CH_SEMICOLON, 464),
        (CH_LT, 458), (CH_EQUALS, 278), (CH_GT, 450), (CH_QMARK, 493), (CH_LBRACKET, 470),
        (CH_BACKSLASH, 73), (CH_RBRACKET, 474), (CH_CARET, 442), (CH_LBRACE, 468), (CH_BAR, 441),
        (CH_RBRACE, 469), (CH_TILDE, 413)] la of Some st \<Rightarrow> ADVANCE st | None
        \<Rightarrow> (
      if (CH_TAB \<le> la \<and> la \<le> CH_CR) \<or> la = CH_SPACE then SKIP 207 else
      if mozcpp_starts_identifier la then ADVANCE 1152 else END_STATE))"

definition mozcpp_lex_208 :: "bool \<Rightarrow> codepoint \<Rightarrow> lex_case" where
  "mozcpp_lex_208 eof la = (None,
      case ADVANCE_MAP [(CH_BANG, 277), (CH_HASH, 299), (CH_PERCENT, 435), (CH_AMP, 445),
        (CH_LPAREN, 410), (CH_RPAREN, 352), (CH_STAR, 431), (CH_PLUS, 425), (CH_COMMA, 351),
        (CH_MINUS, 421), (CH_DOT, 507), (CH_SLASH, 433), (CH_COLON, 491), (CH_SEMICOLON, 464),
        (CH_LT, 458), (CH_EQUALS, 278), (CH_GT, 450), (CH_QMARK, 493), (CH_A, 1005), (CH_B, 985),
        (CH_C, 862), (CH_D, 1066), (CH_F, 950), (CH_H, 830), (CH_I, 961), (CH_L, 840), (CH_P,
        854), (CH_Q, 1067), (CH_S, 867), (CH_T, 857), (CH_U, 863), (CH_V, 992), (CH_W, 865),
        (CH_LBRACKET, 470), (CH_BACKSLASH, 132), (CH_RBRACKET, 474), (CH_CARET, 442), (CH_b,
        1132), (CH_c, 1109), (CH_d, 1127), (CH_f, 1122), (CH_i, 1124), (CH_m, 1086), (CH_p,
        1143), (CH_s, 1111), (CH_u, 1117), (CH_v, 1130), (CH_w, 1096), (CH_LBRACE, 468), (CH_BAR,
        441), (CH_RBRACE, 469)] la of Some st \<Rightarrow> ADVANCE st | None \<Rightarrow> (
      if (CH_TAB \<le> la \<and> la \<le> CH_CR) \<or> la = CH_SPACE then SKIP 208 else
      if mozcpp_starts_identifier la then ADVANCE 1152 else END_STATE))"

definition mozcpp_lex_209 :: "bool \<Rightarrow> codepoint \<Rightarrow> lex_case" where
  "mozcpp_lex_209 eof la = (None,
      case ADVANCE_MAP [(CH_BANG, 277), (CH_HASH, 299), (CH_PERCENT, 435), (CH_AMP, 445),
        (CH_LPAREN, 410), (CH_RPAREN, 352), (CH_STAR, 431), (CH_PLUS, 425), (CH_COMMA, 351),
        (CH_MINUS, 421), (CH_DOT, 507), (CH_SLASH, 433), (CH_COLON, 491), (CH_SEMICOLON, 464),
        (CH_LT, 458), (CH_EQUALS, 278), (CH_GT, 450), (CH_QMARK, 493), (CH_LBRACKET, 470),
        (CH_BACKSLASH, 160), (CH_RBRACKET, 474), (CH_CARET, 442), (CH_LBRACE, 468), (CH_BAR,
        441), (CH_RBRACE, 469)] la of Some st \<Rightarrow> ADVANCE st | None \<Rightarrow> (
      if (CH_TAB \<le> la \<and> la \<le> CH_CR) \<or> la = CH_SPACE then SKIP 209 else
      if mozcpp_starts_identifier la then ADVANCE 1152 else END_STATE))"

definition mozcpp_lex_210 :: "bool \<Rightarrow> codepoint \<Rightarrow> lex_case" where
  "mozcpp_lex_210 eof la = (None,
      case ADVANCE_MAP [(CH_BANG, 277), (CH_HASH, 299), (CH_PERCENT, 435), (CH_AMP, 445),
        (CH_LPAREN, 410), (CH_RPAREN, 352), (CH_STAR, 431), (CH_PLUS, 425), (CH_COMMA, 351),
        (CH_MINUS, 421), (CH_DOT, 507), (CH_SLASH, 433), (CH_COLON, 491), (CH_SEMICOLON, 464),
        (CH_LT, 458), (CH_EQUALS, 278), (CH_GT, 450), (CH_QMARK, 493), (CH_LBRACKET, 470),
        (CH_BACKSLASH, 156), (CH_RBRACKET, 474), (CH_CARET, 442), (CH_BAR, 441), (CH_RBRACE,
        469)] la of Some st \<Rightarrow> ADVANCE st | None \<Rightarrow> (
      if (CH_TAB \<le> la \<and> la \<le> CH_CR) \<or> la = CH_SPACE then SKIP 211 else
      if (CH_A \<le> la \<and> la \<le> CH_UNDERSCORE) \<or> (CH_a \<le> la \<and> la \<le> CH_z)
        then ADVANCE 1182 else
      if mozcpp_starts_identifier la then ADVANCE 1152 else END_STATE))"

definition mozcpp_lex_211 :: "bool \<Rightarrow> codepoint \<Rightarrow> lex_case" where
  "mozcpp_lex_211 eof la = (None,
      case ADVANCE_MAP [(CH_BANG, 277), (CH_HASH, 299), (CH_PERCENT, 435), (CH_AMP, 445),
        (CH_LPAREN, 410), (CH_RPAREN, 352), (CH_STAR, 431), (CH_PLUS, 425), (CH_COMMA, 351),
        (CH_MINUS, 421), (CH_DOT, 507), (CH_SLASH, 433), (CH_COLON, 491), (CH_SEMICOLON, 464),
        (CH_LT, 458), (CH_EQUALS, 278), (CH_GT, 450), (CH_QMARK, 493), (CH_LBRACKET, 470),
        (CH_BACKSLASH, 156), (CH_RBRACKET, 474), (CH_CARET, 442), (CH_BAR, 441), (CH_RBRACE,
        469)] la of Some st \<Rightarrow> ADVANCE st | None \<Rightarrow> (
      if (CH_TAB \<le> la \<and> la \<le> CH_CR) \<or> la = CH_SPACE then SKIP 211 else
      if mozcpp_starts_identifier la then ADVANCE 1152 else END_STATE))"

definition mozcpp_lex_212 :: "bool \<Rightarrow> codepoint \<Rightarrow> lex_case" where
  "mozcpp_lex_212 eof la = (None,
      case ADVANCE_MAP [(CH_BANG, 277), (CH_PERCENT, 436), (CH_AMP, 446), (CH_LPAREN, 410),
        (CH_RPAREN, 352), (CH_STAR, 432), (CH_PLUS, 428), (CH_COMMA, 351), (CH_MINUS, 419),
        (CH_DOT, 507), (CH_SLASH, 434), (CH_COLON, 492), (CH_SEMICOLON, 464), (CH_LT, 456),
        (CH_EQUALS, 476), (CH_GT, 451), (CH_QMARK, 493), (CH_LBRACKET, 470), (CH_BACKSLASH, 65),
        (CH_CARET, 443), (CH_LBRACE, 468), (CH_BAR, 440)] la of Some st \<Rightarrow> ADVANCE st
        | None \<Rightarrow> (
      if (CH_TAB \<le> la \<and> la \<le> CH_CR) \<or> la = CH_SPACE then SKIP 212 else
      if mozcpp_starts_identifier la then ADVANCE 1152 else END_STATE))"

definition mozcpp_lex_213 :: "bool \<Rightarrow> codepoint \<Rightarrow> lex_case" where
  "mozcpp_lex_213 eof la = (None,
      case ADVANCE_MAP [(CH_BANG, 277), (CH_PERCENT, 436), (CH_AMP, 446), (CH_LPAREN, 410),
        (CH_RPAREN, 352), (CH_STAR, 432), (CH_PLUS, 428), (CH_COMMA, 351), (CH_MINUS, 419),
        (CH_DOT, 507), (CH_SLASH, 434), (CH_COLON, 491), (CH_LT, 456), (CH_EQUALS, 476), (CH_GT,
        451), (CH_QMARK, 493), (CH_LBRACKET, 470), (CH_BACKSLASH, 81), (CH_CARET, 443),
        (CH_LBRACE, 468), (CH_BAR, 440)] la of Some st \<Rightarrow> ADVANCE st | None
        \<Rightarrow> (
      if (CH_TAB \<le> la \<and> la \<le> CH_CR) \<or> la = CH_SPACE then SKIP 213 else
      if mozcpp_starts_identifier la then ADVANCE 1152 else END_STATE))"

definition mozcpp_lex_214 :: "bool \<Rightarrow> codepoint \<Rightarrow> lex_case" where
  "mozcpp_lex_214 eof la = (None,
      case ADVANCE_MAP [(CH_BANG, 277), (CH_PERCENT, 436), (CH_AMP, 446), (CH_LPAREN, 410),
        (CH_RPAREN, 352), (CH_STAR, 432), (CH_PLUS, 428), (CH_COMMA, 351), (CH_MINUS, 419),
        (CH_DOT, 507), (CH_SLASH, 434), (CH_LT, 456), (CH_EQUALS, 476), (CH_GT, 451), (CH_QMARK,
        493), (CH_A, 1005), (CH_B, 985), (CH_C, 862), (CH_D, 1066), (CH_F, 950), (CH_H, 830),
        (CH_I, 961), (CH_L, 840), (CH_P, 854), (CH_Q, 1067), (CH_S, 867), (CH_T, 857), (CH_U,
        863), (CH_V, 992), (CH_W, 865), (CH_LBRACKET, 470), (CH_BACKSLASH, 61), (CH_CARET, 443),
        (CH_b, 1132), (CH_c, 1109), (CH_d, 1127), (CH_f, 1122), (CH_i, 1124), (CH_m, 1086),
        (CH_p, 1143), (CH_s, 1111), (CH_u, 1117), (CH_v, 1130), (CH_w, 1096), (CH_LBRACE, 468),
        (CH_BAR, 440)] la of Some st \<Rightarrow> ADVANCE st | None \<Rightarrow> (
      if (CH_TAB \<le> la \<and> la \<le> CH_CR) \<or> la = CH_SPACE then SKIP 214 else
      if mozcpp_starts_identifier la then ADVANCE 1152 else END_STATE))"

definition mozcpp_lex_215 :: "bool \<Rightarrow> codepoint \<Rightarrow> lex_case" where
  "mozcpp_lex_215 eof la = (None,
      case ADVANCE_MAP [(CH_BANG, 277), (CH_PERCENT, 436), (CH_AMP, 446), (CH_LPAREN, 410),
        (CH_RPAREN, 352), (CH_STAR, 432), (CH_PLUS, 428), (CH_COMMA, 351), (CH_MINUS, 419),
        (CH_DOT, 507), (CH_SLASH, 434), (CH_LT, 456), (CH_EQUALS, 476), (CH_GT, 451), (CH_QMARK,
        493), (CH_LBRACKET, 472), (CH_BACKSLASH, 89), (CH_CARET, 443), (CH_BAR, 440)] la of Some
        st \<Rightarrow> ADVANCE st | None \<Rightarrow> (
      if (CH_TAB \<le> la \<and> la \<le> CH_CR) \<or> la = CH_SPACE then SKIP 215 else
      if mozcpp_starts_identifier la then ADVANCE 1152 else END_STATE))"

definition mozcpp_lex_216 :: "bool \<Rightarrow> codepoint \<Rightarrow> lex_case" where
  "mozcpp_lex_216 eof la = (None,
      case ADVANCE_MAP [(CH_BANG, 277), (CH_PERCENT, 436), (CH_AMP, 446), (CH_LPAREN, 410),
        (CH_RPAREN, 352), (CH_STAR, 432), (CH_PLUS, 428), (CH_COMMA, 351), (CH_MINUS, 419),
        (CH_DOT, 507), (CH_SLASH, 434), (CH_LT, 456), (CH_EQUALS, 476), (CH_GT, 451), (CH_QMARK,
        493), (CH_LBRACKET, 470), (CH_BACKSLASH, 146), (CH_CARET, 443), (CH_BAR, 440)] la of Some
        st \<Rightarrow> ADVANCE st | None \<Rightarrow> (
      if (CH_TAB \<le> la \<and> la \<le> CH_CR) \<or> la = CH_SPACE then SKIP 217 else
      if (CH_A \<le> la \<and> la \<le> CH_Z) \<or> la = CH_UNDERSCORE \<or> (CH_a \<le> la
        \<and> la \<le> CH_z) then ADVANCE 1182 else
      if mozcpp_starts_identifier la then ADVANCE 1152 else END_STATE))"

definition mozcpp_lex_217 :: "bool \<Rightarrow> codepoint \<Rightarrow> lex_case" where
  "mozcpp_lex_217 eof la = (None,
      case ADVANCE_MAP [(CH_BANG, 277), (CH_PERCENT, 436), (CH_AMP, 446), (CH_LPAREN, 410),
        (CH_RPAREN, 352), (CH_STAR, 432), (CH_PLUS, 428), (CH_COMMA, 351), (CH_MINUS, 419),
        (CH_DOT, 507), (CH_SLASH, 434), (CH_LT, 456), (CH_EQUALS, 476), (CH_GT, 451), (CH_QMARK,
        493), (CH_LBRACKET, 470), (CH_BACKSLASH, 146), (CH_CARET, 443), (CH_BAR, 440)] la of Some
        st \<Rightarrow> ADVANCE st | None \<Rightarrow> (
      if (CH_TAB \<le> la \<and> la \<le> CH_CR) \<or> la = CH_SPACE then SKIP 217 else
      if mozcpp_starts_identifier la then ADVANCE 1152 else END_STATE))"

definition mozcpp_lex_218 :: "bool \<Rightarrow> codepoint \<Rightarrow> lex_case" where
  "mozcpp_lex_218 eof la = (None,
      case ADVANCE_MAP [(CH_BANG, 277), (CH_PERCENT, 436), (CH_AMP, 446), (CH_LPAREN, 410),
        (CH_RPAREN, 352), (CH_STAR, 432), (CH_PLUS, 428), (CH_COMMA, 351), (CH_MINUS, 419),
        (CH_DOT, 507), (CH_SLASH, 434), (CH_LT, 456), (CH_EQUALS, 476), (CH_GT, 451), (CH_QMARK,
        493), (CH_LBRACKET, 473), (CH_BACKSLASH, 158), (CH_CARET, 443), (CH_BAR, 440)] la of Some
        st \<Rightarrow> ADVANCE st | None \<Rightarrow> (
      if (CH_TAB \<le> la \<and> la \<le> CH_CR) \<or> la = CH_SPACE then SKIP 218 else
      if mozcpp_starts_identifier la then ADVANCE 1152 else END_STATE))"

definition mozcpp_lex_219 :: "bool \<Rightarrow> codepoint \<Rightarrow> lex_case" where
  "mozcpp_lex_219 eof la = (None,
      case ADVANCE_MAP [(CH_BANG, 277), (CH_PERCENT, 436), (CH_AMP, 446), (CH_LPAREN, 410),
        (CH_STAR, 432), (CH_PLUS, 428), (CH_COMMA, 351), (CH_MINUS, 420), (CH_DOT, 507),
        (CH_SLASH, 434), (CH_COLON, 492), (CH_LT, 456), (CH_EQUALS, 476), (CH_GT, 1162),
        (CH_QMARK, 493), (CH_LBRACKET, 470), (CH_BACKSLASH, 67), (CH_CARET, 443), (CH_LBRACE,
        468), (CH_BAR, 440)] la of Some st \<Rightarrow> ADVANCE st | None \<Rightarrow> (
      if (CH_TAB \<le> la \<and> la \<le> CH_CR) \<or> la = CH_SPACE then SKIP 219 else
      if mozcpp_starts_identifier la then ADVANCE 1152 else END_STATE))"

definition mozcpp_lex_220 :: "bool \<Rightarrow> codepoint \<Rightarrow> lex_case" where
  "mozcpp_lex_220 eof la = (None,
      case ADVANCE_MAP [(CH_BANG, 277), (CH_PERCENT, 436), (CH_AMP, 446), (CH_LPAREN, 410),
        (CH_STAR, 432), (CH_PLUS, 428), (CH_COMMA, 351), (CH_MINUS, 420), (CH_DOT, 507),
        (CH_SLASH, 434), (CH_COLON, 491), (CH_LT, 456), (CH_EQUALS, 476), (CH_GT, 1162),
        (CH_QMARK, 493), (CH_LBRACKET, 470), (CH_BACKSLASH, 154), (CH_CARET, 443), (CH_LBRACE,
        468), (CH_BAR, 440)] la of Some st \<Rightarrow> ADVANCE st | None \<Rightarrow> (
      if (CH_TAB \<le> la \<and> la \<le> CH_CR) \<or> la = CH_SPACE then SKIP 220 else
      if mozcpp_starts_identifier la then ADVANCE 1152 else END_STATE))"

definition mozcpp_lex_221 :: "bool \<Rightarrow> codepoint \<Rightarrow> lex_case" where
  "mozcpp_lex_221 eof la = (None,
      case ADVANCE_MAP [(CH_BANG, 277), (CH_PERCENT, 436), (CH_AMP, 446), (CH_LPAREN, 410),
        (CH_STAR, 432), (CH_PLUS, 428), (CH_COMMA, 351), (CH_MINUS, 420), (CH_DOT, 507),
        (CH_SLASH, 434), (CH_SEMICOLON, 464), (CH_LT, 456), (CH_EQUALS, 476), (CH_GT, 451),
        (CH_QMARK, 493), (CH_LBRACKET, 472), (CH_BACKSLASH, 87), (CH_CARET, 443), (CH_BAR, 440),
        (CH_RBRACE, 469)] la of Some st \<Rightarrow> ADVANCE st | None \<Rightarrow> (
      if (CH_TAB \<le> la \<and> la \<le> CH_CR) \<or> la = CH_SPACE then SKIP 221 else
      if mozcpp_starts_identifier la then ADVANCE 1152 else END_STATE))"

definition mozcpp_lex_222 :: "bool \<Rightarrow> codepoint \<Rightarrow> lex_case" where
  "mozcpp_lex_222 eof la = (None,
      case ADVANCE_MAP [(CH_BANG, 277), (CH_PERCENT, 436), (CH_AMP, 446), (CH_LPAREN, 410),
        (CH_STAR, 432), (CH_PLUS, 428), (CH_COMMA, 351), (CH_MINUS, 420), (CH_DOT, 507),
        (CH_SLASH, 434), (CH_LT, 456), (CH_EQUALS, 476), (CH_GT, 1162), (CH_QMARK, 493), (CH_A,
        1005), (CH_B, 985), (CH_C, 862), (CH_D, 1066), (CH_F, 950), (CH_H, 830), (CH_I, 961),
        (CH_L, 840), (CH_P, 854), (CH_Q, 1067), (CH_S, 867), (CH_T, 857), (CH_U, 863), (CH_V,
        992), (CH_W, 865), (CH_LBRACKET, 470), (CH_BACKSLASH, 63), (CH_CARET, 443), (CH_b, 1132),
        (CH_c, 1109), (CH_d, 1127), (CH_f, 1122), (CH_i, 1124), (CH_m, 1086), (CH_p, 1143),
        (CH_s, 1111), (CH_u, 1117), (CH_v, 1130), (CH_w, 1096), (CH_LBRACE, 468), (CH_BAR, 440)]
        la of Some st \<Rightarrow> ADVANCE st | None \<Rightarrow> (
      if (CH_TAB \<le> la \<and> la \<le> CH_CR) \<or> la = CH_SPACE then SKIP 222 else
      if mozcpp_starts_identifier la then ADVANCE 1152 else END_STATE))"

definition mozcpp_lex_223 :: "bool \<Rightarrow> codepoint \<Rightarrow> lex_case" where
  "mozcpp_lex_223 eof la = (None,
      case ADVANCE_MAP [(CH_BANG, 277), (CH_PERCENT, 436), (CH_AMP, 446), (CH_LPAREN, 410),
        (CH_STAR, 432), (CH_PLUS, 428), (CH_COMMA, 351), (CH_MINUS, 420), (CH_DOT, 507),
        (CH_SLASH, 434), (CH_LT, 456), (CH_EQUALS, 476), (CH_GT, 1162), (CH_QMARK, 493),
        (CH_LBRACKET, 471), (CH_BACKSLASH, 51), (CH_CARET, 443), (CH_BAR, 440)] la of Some st
        \<Rightarrow> ADVANCE st | None \<Rightarrow> (
      if (CH_TAB \<le> la \<and> la \<le> CH_CR) \<or> la = CH_SPACE then SKIP 223 else
      if mozcpp_starts_identifier la then ADVANCE 1152 else END_STATE))"

definition mozcpp_lex_224 :: "bool \<Rightarrow> codepoint \<Rightarrow> lex_case" where
  "mozcpp_lex_224 eof la = (None,
      case ADVANCE_MAP [(CH_BANG, 277), (CH_PERCENT, 436), (CH_AMP, 446), (CH_LPAREN, 410),
        (CH_STAR, 432), (CH_PLUS, 428), (CH_COMMA, 351), (CH_MINUS, 420), (CH_DOT, 507),
        (CH_SLASH, 434), (CH_LT, 456), (CH_EQUALS, 476), (CH_GT, 1162), (CH_QMARK, 493),
        (CH_LBRACKET, 470), (CH_BACKSLASH, 130), (CH_CARET, 443), (CH_BAR, 440)] la of Some st
        \<Rightarrow> ADVANCE st | None \<Rightarrow> (
      if (CH_TAB \<le> la \<and> la \<le> CH_CR) \<or> la = CH_SPACE then SKIP 225 else
      if (CH_A \<le> la \<and> la \<le> CH_Z) \<or> la = CH_UNDERSCORE \<or> (CH_a \<le> la
        \<and> la \<le> CH_z) then ADVANCE 1182 else
      if mozcpp_starts_identifier la then ADVANCE 1152 else END_STATE))"

definition mozcpp_lex_225 :: "bool \<Rightarrow> codepoint \<Rightarrow> lex_case" where
  "mozcpp_lex_225 eof la = (None,
      case ADVANCE_MAP [(CH_BANG, 277), (CH_PERCENT, 436), (CH_AMP, 446), (CH_LPAREN, 410),
        (CH_STAR, 432), (CH_PLUS, 428), (CH_COMMA, 351), (CH_MINUS, 420), (CH_DOT, 507),
        (CH_SLASH, 434), (CH_LT, 456), (CH_EQUALS, 476), (CH_GT, 1162), (CH_QMARK, 493),
        (CH_LBRACKET, 470), (CH_BACKSLASH, 130), (CH_CARET, 443), (CH_BAR, 440)] la of Some st
        \<Rightarrow> ADVANCE st | None \<Rightarrow> (
      if (CH_TAB \<le> la \<and> la \<le> CH_CR) \<or> la = CH_SPACE then SKIP 225 else
      if mozcpp_starts_identifier la then ADVANCE 1152 else END_STATE))"

definition mozcpp_lex_226 :: "bool \<Rightarrow> codepoint \<Rightarrow> lex_case" where
  "mozcpp_lex_226 eof la = (None,
      case ADVANCE_MAP [(CH_BANG, 277), (CH_PERCENT, 436), (CH_AMP, 446), (CH_LPAREN, 410),
        (CH_STAR, 432), (CH_PLUS, 428), (CH_COMMA, 351), (CH_MINUS, 420), (CH_DOT, 507),
        (CH_SLASH, 434), (CH_LT, 456), (CH_EQUALS, 476), (CH_GT, 1162), (CH_QMARK, 493),
        (CH_LBRACKET, 473), (CH_BACKSLASH, 152), (CH_CARET, 443), (CH_BAR, 440)] la of Some st
        \<Rightarrow> ADVANCE st | None \<Rightarrow> (
      if (CH_TAB \<le> la \<and> la \<le> CH_CR) \<or> la = CH_SPACE then SKIP 226 else
      if mozcpp_starts_identifier la then ADVANCE 1152 else END_STATE))"

definition mozcpp_lex_227 :: "bool \<Rightarrow> codepoint \<Rightarrow> lex_case" where
  "mozcpp_lex_227 eof la = (None,
      case ADVANCE_MAP [(CH_BANG, 277), (CH_PERCENT, 436), (CH_AMP, 446), (CH_STAR, 432),
        (CH_PLUS, 430), (CH_COMMA, 351), (CH_MINUS, 423), (CH_DOT, 258), (CH_SLASH, 434), (CH_LT,
        457), (CH_EQUALS, 476), (CH_GT, 451), (CH_BACKSLASH, 95), (CH_CARET, 443), (CH_BAR, 440)]
        la of Some st \<Rightarrow> ADVANCE st | None \<Rightarrow> (
      if (CH_TAB \<le> la \<and> la \<le> CH_CR) \<or> la = CH_SPACE then SKIP 227 else
      if mozcpp_starts_identifier la then ADVANCE 1152 else END_STATE))"

definition mozcpp_lex_228 :: "bool \<Rightarrow> codepoint \<Rightarrow> lex_case" where
  "mozcpp_lex_228 eof la = (None,
      case ADVANCE_MAP [(CH_BANG, 277), (CH_PERCENT, 435), (CH_AMP, 445), (CH_LPAREN, 410),
        (CH_RPAREN, 352), (CH_STAR, 431), (CH_PLUS, 425), (CH_COMMA, 351), (CH_MINUS, 421),
        (CH_DOT, 507), (CH_SLASH, 433), (CH_COLON, 492), (CH_SEMICOLON, 464), (CH_LT, 458),
        (CH_EQUALS, 476), (CH_GT, 450), (CH_QMARK, 493), (CH_LBRACKET, 471), (CH_BACKSLASH, 39),
        (CH_RBRACKET, 474), (CH_CARET, 442), (CH_LBRACE, 468), (CH_BAR, 441), (CH_RBRACE, 469),
        (CH_TILDE, 413)] la of Some st \<Rightarrow> ADVANCE st | None \<Rightarrow> (
      if (CH_TAB \<le> la \<and> la \<le> CH_CR) \<or> la = CH_SPACE then SKIP 228 else
      if mozcpp_starts_identifier la then ADVANCE 1152 else END_STATE))"

definition mozcpp_lex_229 :: "bool \<Rightarrow> codepoint \<Rightarrow> lex_case" where
  "mozcpp_lex_229 eof la = (None,
      case ADVANCE_MAP [(CH_BANG, 277), (CH_PERCENT, 435), (CH_AMP, 445), (CH_LPAREN, 410),
        (CH_RPAREN, 352), (CH_STAR, 431), (CH_PLUS, 425), (CH_COMMA, 351), (CH_MINUS, 421),
        (CH_DOT, 507), (CH_SLASH, 433), (CH_COLON, 492), (CH_SEMICOLON, 464), (CH_LT, 458),
        (CH_EQUALS, 278), (CH_GT, 450), (CH_QMARK, 493), (CH_A, 1005), (CH_B, 985), (CH_C, 862),
        (CH_D, 1066), (CH_F, 950), (CH_H, 830), (CH_I, 961), (CH_L, 840), (CH_P, 854), (CH_Q,
        1067), (CH_S, 867), (CH_T, 857), (CH_U, 863), (CH_V, 992), (CH_W, 865), (CH_LBRACKET,
        470), (CH_BACKSLASH, 71), (CH_RBRACKET, 474), (CH_CARET, 442), (CH_b, 1132), (CH_c,
        1109), (CH_d, 1127), (CH_f, 1122), (CH_i, 1124), (CH_m, 1086), (CH_p, 1143), (CH_s,
        1111), (CH_u, 1117), (CH_v, 1130), (CH_w, 1096), (CH_LBRACE, 468), (CH_BAR, 441),
        (CH_RBRACE, 469)] la of Some st \<Rightarrow> ADVANCE st | None \<Rightarrow> (
      if (CH_TAB \<le> la \<and> la \<le> CH_CR) \<or> la = CH_SPACE then SKIP 229 else
      if mozcpp_starts_identifier la then ADVANCE 1152 else END_STATE))"

definition mozcpp_lex_230 :: "bool \<Rightarrow> codepoint \<Rightarrow> lex_case" where
  "mozcpp_lex_230 eof la = (None,
      case ADVANCE_MAP [(CH_BANG, 277), (CH_PERCENT, 435), (CH_AMP, 445), (CH_LPAREN, 410),
        (CH_RPAREN, 352), (CH_STAR, 431), (CH_PLUS, 425), (CH_COMMA, 351), (CH_MINUS, 421),
        (CH_DOT, 507), (CH_SLASH, 433), (CH_COLON, 275), (CH_SEMICOLON, 464), (CH_LT, 458),
        (CH_EQUALS, 278), (CH_GT, 450), (CH_QMARK, 493), (CH_A, 1005), (CH_B, 985), (CH_C, 862),
        (CH_D, 1066), (CH_F, 950), (CH_H, 830), (CH_I, 961), (CH_L, 840), (CH_P, 854), (CH_Q,
        1067), (CH_S, 867), (CH_T, 857), (CH_U, 863), (CH_V, 992), (CH_W, 865), (CH_LBRACKET,
        470), (CH_BACKSLASH, 140), (CH_RBRACKET, 289), (CH_CARET, 442), (CH_b, 1132), (CH_c,
        1109), (CH_d, 1127), (CH_f, 1122), (CH_i, 1124), (CH_m, 1086), (CH_p, 1143), (CH_s,
        1111), (CH_u, 1117), (CH_v, 1130), (CH_w, 1096), (CH_LBRACE, 468), (CH_BAR, 441),
        (CH_RBRACE, 469)] la of Some st \<Rightarrow> ADVANCE st | None \<Rightarrow> (
      if (CH_TAB \<le> la \<and> la \<le> CH_CR) \<or> la = CH_SPACE then SKIP 230 else
      if mozcpp_starts_identifier la then ADVANCE 1152 else END_STATE))"

definition mozcpp_lex_231 :: "bool \<Rightarrow> codepoint \<Rightarrow> lex_case" where
  "mozcpp_lex_231 eof la = (None,
      case ADVANCE_MAP [(CH_BANG, 277), (CH_PERCENT, 435), (CH_AMP, 445), (CH_LPAREN, 410),
        (CH_STAR, 431), (CH_PLUS, 425), (CH_COMMA, 351), (CH_MINUS, 421), (CH_DOT, 507),
        (CH_SLASH, 433), (CH_COLON, 492), (CH_LT, 458), (CH_EQUALS, 278), (CH_GT, 1162),
        (CH_QMARK, 493), (CH_LBRACKET, 470), (CH_BACKSLASH, 164), (CH_CARET, 442), (CH_LBRACE,
        468), (CH_BAR, 441)] la of Some st \<Rightarrow> ADVANCE st | None \<Rightarrow> (
      if (CH_TAB \<le> la \<and> la \<le> CH_CR) \<or> la = CH_SPACE then SKIP 231 else
      if mozcpp_starts_identifier la then ADVANCE 1152 else END_STATE))"

definition mozcpp_lex_232 :: "bool \<Rightarrow> codepoint \<Rightarrow> lex_case" where
  "mozcpp_lex_232 eof la = (None,
      case ADVANCE_MAP [(CH_BANG, 277), (CH_PERCENT, 435), (CH_AMP, 445), (CH_LPAREN, 410),
        (CH_STAR, 431), (CH_PLUS, 425), (CH_COMMA, 351), (CH_MINUS, 421), (CH_DOT, 507),
        (CH_SLASH, 433), (CH_COLON, 491), (CH_LT, 458), (CH_EQUALS, 278), (CH_GT, 1162),
        (CH_QMARK, 493), (CH_LBRACKET, 470), (CH_BACKSLASH, 136), (CH_CARET, 442), (CH_LBRACE,
        468), (CH_BAR, 441)] la of Some st \<Rightarrow> ADVANCE st | None \<Rightarrow> (
      if (CH_TAB \<le> la \<and> la \<le> CH_CR) \<or> la = CH_SPACE then SKIP 232 else
      if mozcpp_starts_identifier la then ADVANCE 1152 else END_STATE))"

definition mozcpp_lex_233 :: "bool \<Rightarrow> codepoint \<Rightarrow> lex_case" where
  "mozcpp_lex_233 eof la = (None,
      case ADVANCE_MAP [(CH_BANG, 277), (CH_PERCENT, 435), (CH_AMP, 445), (CH_LPAREN, 410),
        (CH_STAR, 431), (CH_PLUS, 425), (CH_COMMA, 351), (CH_MINUS, 421), (CH_DOT, 507),
        (CH_SLASH, 433), (CH_LT, 458), (CH_EQUALS, 278), (CH_GT, 1162), (CH_QMARK, 493), (CH_A,
        1005), (CH_B, 985), (CH_C, 862), (CH_D, 1066), (CH_F, 950), (CH_H, 830), (CH_I, 961),
        (CH_L, 840), (CH_P, 854), (CH_Q, 1067), (CH_S, 867), (CH_T, 857), (CH_U, 863), (CH_V,
        992), (CH_W, 865), (CH_LBRACKET, 470), (CH_BACKSLASH, 134), (CH_CARET, 442), (CH_b,
        1132), (CH_c, 1109), (CH_d, 1127), (CH_f, 1122), (CH_i, 1124), (CH_m, 1086), (CH_p,
        1143), (CH_s, 1111), (CH_u, 1117), (CH_v, 1130), (CH_w, 1096), (CH_LBRACE, 468), (CH_BAR,
        441)] la of Some st \<Rightarrow> ADVANCE st | None \<Rightarrow> (
      if (CH_TAB \<le> la \<and> la \<le> CH_CR) \<or> la = CH_SPACE then SKIP 233 else
      if mozcpp_starts_identifier la then ADVANCE 1152 else END_STATE))"

definition mozcpp_lex_234 :: "bool \<Rightarrow> codepoint \<Rightarrow> lex_case" where
  "mozcpp_lex_234 eof la = (None,
      case ADVANCE_MAP [(CH_BANG, 277), (CH_PERCENT, 435), (CH_AMP, 445), (CH_LPAREN, 410),
        (CH_STAR, 431), (CH_PLUS, 425), (CH_COMMA, 351), (CH_MINUS, 421), (CH_DOT, 507),
        (CH_SLASH, 433), (CH_LT, 458), (CH_EQUALS, 278), (CH_GT, 1162), (CH_QMARK, 493),
        (CH_LBRACKET, 470), (CH_BACKSLASH, 162), (CH_CARET, 442), (CH_BAR, 441)] la of Some st
        \<Rightarrow> ADVANCE st | None \<Rightarrow> (
      if (CH_TAB \<le> la \<and> la \<le> CH_CR) \<or> la = CH_SPACE then SKIP 235 else
      if (CH_A \<le> la \<and> la \<le> CH_Z) \<or> la = CH_UNDERSCORE \<or> (CH_a \<le> la
        \<and> la \<le> CH_z) then ADVANCE 1182 else
      if mozcpp_starts_identifier la then ADVANCE 1152 else END_STATE))"

definition mozcpp_lex_235 :: "bool \<Rightarrow> codepoint \<Rightarrow> lex_case" where
  "mozcpp_lex_235 eof la = (None,
      case ADVANCE_MAP [(CH_BANG, 277), (CH_PERCENT, 435), (CH_AMP, 445), (CH_LPAREN, 410),
        (CH_STAR, 431), (CH_PLUS, 425), (CH_COMMA, 351), (CH_MINUS, 421), (CH_DOT, 507),
        (CH_SLASH, 433), (CH_LT, 458), (CH_EQUALS, 278), (CH_GT, 1162), (CH_QMARK, 493),
        (CH_LBRACKET, 470), (CH_BACKSLASH, 162), (CH_CARET, 442), (CH_BAR, 441)] la of Some st
        \<Rightarrow> ADVANCE st | None \<Rightarrow> (
      if (CH_TAB \<le> la \<and> la \<le> CH_CR) \<or> la = CH_SPACE then SKIP 235 else
      if mozcpp_starts_identifier la then ADVANCE 1152 else END_STATE))"

definition mozcpp_lex_236 :: "bool \<Rightarrow> codepoint \<Rightarrow> lex_case" where
  "mozcpp_lex_236 eof la = (None,
      case ADVANCE_MAP [(CH_DQUOTE, 543), (CH_AMP, 445), (CH_LPAREN, 410), (CH_STAR, 431),
        (CH_SLASH, 259), (CH_COLON, 275), (CH_A, 1005), (CH_B, 985), (CH_C, 862), (CH_D, 1066),
        (CH_F, 950), (CH_H, 830), (CH_I, 961), (CH_L, 795), (CH_P, 854), (CH_Q, 1067), (CH_S,
        867), (CH_T, 857), (CH_U, 802), (CH_V, 992), (CH_W, 865), (CH_LBRACKET, 471),
        (CH_BACKSLASH, 45), (CH_b, 1132), (CH_c, 1109), (CH_d, 1127), (CH_f, 1122), (CH_i, 1124),
        (CH_m, 1086), (CH_p, 1143), (CH_s, 1111), (CH_u, 807), (CH_v, 1130), (CH_w, 1096),
        (CH_TILDE, 413)] la of Some st \<Rightarrow> ADVANCE st | None \<Rightarrow> (
      if (CH_TAB \<le> la \<and> la \<le> CH_CR) \<or> la = CH_SPACE then SKIP 236 else
      if mozcpp_starts_identifier la then ADVANCE 1152 else END_STATE))"

definition mozcpp_lex_237 :: "bool \<Rightarrow> codepoint \<Rightarrow> lex_case" where
  "mozcpp_lex_237 eof la = (None,
      case ADVANCE_MAP [(CH_DQUOTE, 543), (CH_RPAREN, 352), (CH_COMMA, 351), (CH_SLASH, 259),
        (CH_COLON, 491), (CH_L, 796), (CH_R, 799), (CH_U, 803), (CH_BACKSLASH, 108), (CH_u, 806)]
        la of Some st \<Rightarrow> ADVANCE st | None \<Rightarrow> (
      if (CH_TAB \<le> la \<and> la \<le> CH_CR) \<or> la = CH_SPACE then SKIP 237 else
      if mozcpp_starts_identifier la then ADVANCE 1152 else END_STATE))"

definition mozcpp_lex_238 :: "bool \<Rightarrow> codepoint \<Rightarrow> lex_case" where
  "mozcpp_lex_238 eof la = (None,
      if la = CH_DQUOTE then ADVANCE 543 else
      if la = CH_SLASH then ADVANCE 259 else
      if la = CH_LT then ADVANCE 283 else
      if la = CH_L then ADVANCE 797 else
      if la = CH_U then ADVANCE 804 else
      if la = CH_BACKSLASH then ADVANCE 110 else
      if la = CH_u then ADVANCE 808 else
      if (CH_TAB \<le> la \<and> la \<le> CH_CR) \<or> la = CH_SPACE then SKIP 238 else
      if mozcpp_starts_identifier la then ADVANCE 1152 else END_STATE)"

definition mozcpp_lex_239 :: "bool \<Rightarrow> codepoint \<Rightarrow> lex_case" where
  "mozcpp_lex_239 eof la = (None,
      if la = CH_DQUOTE then ADVANCE 543 else
      if la = CH_SLASH then ADVANCE 259 else
      if la = CH_BACKSLASH then ADVANCE 112 else
      if (CH_TAB \<le> la \<and> la \<le> CH_CR) \<or> la = CH_SPACE then SKIP 239 else
        END_STATE)"

definition mozcpp_lex_240 :: "bool \<Rightarrow> codepoint \<Rightarrow> lex_case" where
  "mozcpp_lex_240 eof la = (None,
      if la = CH_DQUOTE then ADVANCE 1172 else END_STATE)"

definition mozcpp_lex_241 :: "bool \<Rightarrow> codepoint \<Rightarrow> lex_case" where
  "mozcpp_lex_241 eof la = (None,
      case ADVANCE_MAP [(CH_HASH, 299), (CH_AMP, 445), (CH_LPAREN, 410), (CH_RPAREN, 352),
        (CH_STAR, 431), (CH_COMMA, 351), (CH_MINUS, 282), (CH_DOT, 264), (CH_SLASH, 259),
        (CH_COLON, 492), (CH_SEMICOLON, 464), (CH_LT, 455), (CH_EQUALS, 475), (CH_GT, 1162),
        (CH_LBRACKET, 471), (CH_BACKSLASH, 41), (CH_RBRACKET, 474), (CH_LBRACE, 468), (CH_BAR,
        313), (CH_TILDE, 413)] la of Some st \<Rightarrow> ADVANCE st | None \<Rightarrow> (
      if (CH_TAB \<le> la \<and> la \<le> CH_CR) \<or> la = CH_SPACE then SKIP 241 else
      if mozcpp_starts_identifier la then ADVANCE 1152 else END_STATE))"

definition mozcpp_lex_242 :: "bool \<Rightarrow> codepoint \<Rightarrow> lex_case" where
  "mozcpp_lex_242 eof la = (None,
      case ADVANCE_MAP [(CH_HASH, 291), (CH_AMP, 445), (CH_LPAREN, 410), (CH_RPAREN, 352),
        (CH_STAR, 431), (CH_PLUS, 424), (CH_COMMA, 351), (CH_MINUS, 282), (CH_DOT, 264),
        (CH_SLASH, 259), (CH_COLON, 492), (CH_SEMICOLON, 464), (CH_LT, 455), (CH_EQUALS, 475),
        (CH_GT, 1162), (CH_A, 1005), (CH_B, 985), (CH_C, 862), (CH_D, 1066), (CH_F, 950), (CH_H,
        830), (CH_I, 961), (CH_L, 840), (CH_P, 854), (CH_Q, 1067), (CH_S, 867), (CH_T, 857),
        (CH_U, 863), (CH_V, 992), (CH_W, 865), (CH_LBRACKET, 471), (CH_BACKSLASH, 15),
        (CH_RBRACKET, 474), (CH_b, 1132), (CH_c, 1109), (CH_d, 1127), (CH_f, 1122), (CH_i, 1124),
        (CH_m, 1086), (CH_p, 1143), (CH_s, 1111), (CH_u, 1117), (CH_v, 1130), (CH_w, 1096),
        (CH_LBRACE, 468), (CH_BAR, 313), (CH_TILDE, 413)] la of Some st \<Rightarrow> ADVANCE st
        | None \<Rightarrow> (
      if (CH_TAB \<le> la \<and> la \<le> CH_CR) \<or> la = CH_SPACE then SKIP 242 else
      if mozcpp_starts_identifier la then ADVANCE 1152 else END_STATE))"

definition mozcpp_lex_243 :: "bool \<Rightarrow> codepoint \<Rightarrow> lex_case" where
  "mozcpp_lex_243 eof la = (None,
      case ADVANCE_MAP [(CH_HASH, 293), (CH_AMP, 445), (CH_LPAREN, 410), (CH_STAR, 431),
        (CH_COMMA, 351), (CH_SLASH, 259), (CH_COLON, 275), (CH_SEMICOLON, 464), (CH_A, 1005),
        (CH_B, 985), (CH_C, 862), (CH_D, 1066), (CH_F, 950), (CH_H, 830), (CH_I, 961), (CH_L,
        840), (CH_P, 854), (CH_Q, 1067), (CH_S, 867), (CH_T, 857), (CH_U, 863), (CH_V, 992),
        (CH_W, 865), (CH_LBRACKET, 471), (CH_BACKSLASH, 19), (CH_b, 1132), (CH_c, 1109), (CH_d,
        1127), (CH_f, 1122), (CH_i, 1124), (CH_m, 1086), (CH_p, 1143), (CH_s, 1111), (CH_u,
        1117), (CH_v, 1130), (CH_w, 1096), (CH_TILDE, 413)] la of Some st \<Rightarrow> ADVANCE
        st | None \<Rightarrow> (
      if (CH_TAB \<le> la \<and> la \<le> CH_CR) \<or> la = CH_SPACE then SKIP 243 else
      if mozcpp_starts_identifier la then ADVANCE 1152 else END_STATE))"

definition mozcpp_lex_244 :: "bool \<Rightarrow> codepoint \<Rightarrow> lex_case" where
  "mozcpp_lex_244 eof la = (None,
      case ADVANCE_MAP [(CH_AMP, 445), (CH_LPAREN, 410), (CH_RPAREN, 352), (CH_STAR, 431),
        (CH_COMMA, 351), (CH_MINUS, 282), (CH_DOT, 264), (CH_SLASH, 259), (CH_COLON, 492),
        (CH_SEMICOLON, 464), (CH_LT, 455), (CH_EQUALS, 475), (CH_GT, 1162), (CH_LBRACKET, 470),
        (CH_BACKSLASH, 75), (CH_LBRACE, 468), (CH_BAR, 313), (CH_TILDE, 413)] la of Some st
        \<Rightarrow> ADVANCE st | None \<Rightarrow> (
      if (CH_TAB \<le> la \<and> la \<le> CH_CR) \<or> la = CH_SPACE then SKIP 244 else
      if mozcpp_starts_identifier la then ADVANCE 1152 else END_STATE))"

definition mozcpp_lex_245 :: "bool \<Rightarrow> codepoint \<Rightarrow> lex_case" where
  "mozcpp_lex_245 eof la = (None,
      case ADVANCE_MAP [(CH_AMP, 445), (CH_LPAREN, 410), (CH_RPAREN, 352), (CH_STAR, 431),
        (CH_COMMA, 351), (CH_MINUS, 282), (CH_DOT, 264), (CH_SLASH, 259), (CH_COLON, 491),
        (CH_SEMICOLON, 464), (CH_LT, 455), (CH_EQUALS, 475), (CH_GT, 1162), (CH_LBRACKET, 471),
        (CH_BACKSLASH, 49), (CH_RBRACKET, 474), (CH_LBRACE, 468), (CH_BAR, 313)] la of Some st
        \<Rightarrow> ADVANCE st | None \<Rightarrow> (
      if (CH_TAB \<le> la \<and> la \<le> CH_CR) \<or> la = CH_SPACE then SKIP 245 else
      if mozcpp_starts_identifier la then ADVANCE 1152 else END_STATE))"

definition mozcpp_lex_246 :: "bool \<Rightarrow> codepoint \<Rightarrow> lex_case" where
  "mozcpp_lex_246 eof la = (None,
      case ADVANCE_MAP [(CH_AMP, 445), (CH_LPAREN, 410), (CH_RPAREN, 352), (CH_STAR, 431),
        (CH_COMMA, 351), (CH_MINUS, 282), (CH_SLASH, 259), (CH_COLON, 491), (CH_SEMICOLON, 464),
        (CH_EQUALS, 475), (CH_GT, 1162), (CH_A, 1005), (CH_B, 985), (CH_C, 862), (CH_D, 1066),
        (CH_F, 950), (CH_H, 830), (CH_I, 961), (CH_L, 840), (CH_P, 854), (CH_Q, 1067), (CH_S,
        867), (CH_T, 857), (CH_U, 863), (CH_V, 992), (CH_W, 865), (CH_LBRACKET, 471),
        (CH_BACKSLASH, 47), (CH_b, 1132), (CH_c, 1109), (CH_d, 1127), (CH_f, 1122), (CH_i, 1124),
        (CH_m, 1086), (CH_p, 1143), (CH_s, 1111), (CH_u, 1117), (CH_v, 1130), (CH_w, 1096),
        (CH_LBRACE, 468)] la of Some st \<Rightarrow> ADVANCE st | None \<Rightarrow> (
      if (CH_TAB \<le> la \<and> la \<le> CH_CR) \<or> la = CH_SPACE then SKIP 246 else
      if mozcpp_starts_identifier la then ADVANCE 1152 else END_STATE))"

definition mozcpp_lex_247 :: "bool \<Rightarrow> codepoint \<Rightarrow> lex_case" where
  "mozcpp_lex_247 eof la = (None,
      case ADVANCE_MAP [(CH_AMP, 445), (CH_LPAREN, 410), (CH_RPAREN, 352), (CH_STAR, 431),
        (CH_COMMA, 351), (CH_DOT, 264), (CH_SLASH, 259), (CH_COLON, 491), (CH_SEMICOLON, 464),
        (CH_EQUALS, 475), (CH_GT, 1162), (CH_LBRACKET, 470), (CH_BACKSLASH, 93), (CH_LBRACE,
        468), (CH_BAR, 313)] la of Some st \<Rightarrow> ADVANCE st | None \<Rightarrow> (
      if (CH_TAB \<le> la \<and> la \<le> CH_CR) \<or> la = CH_SPACE then SKIP 247 else
      if mozcpp_starts_identifier la then ADVANCE 1152 else END_STATE))"

definition mozcpp_lex_248 :: "bool \<Rightarrow> codepoint \<Rightarrow> lex_case" where
  "mozcpp_lex_248 eof la = (None,
      case ADVANCE_MAP [(CH_AMP, 445), (CH_LPAREN, 410), (CH_RPAREN, 352), (CH_STAR, 431),
        (CH_COMMA, 351), (CH_SLASH, 259), (CH_SEMICOLON, 464), (CH_EQUALS, 475), (CH_GT, 1162),
        (CH_A, 1005), (CH_B, 985), (CH_C, 862), (CH_D, 1066), (CH_F, 950), (CH_H, 830), (CH_I,
        961), (CH_L, 840), (CH_P, 854), (CH_Q, 1067), (CH_S, 867), (CH_T, 857), (CH_U, 863),
        (CH_V, 992), (CH_W, 865), (CH_LBRACKET, 470), (CH_BACKSLASH, 91), (CH_b, 1132), (CH_c,
        1109), (CH_d, 1127), (CH_f, 1122), (CH_i, 1124), (CH_m, 1086), (CH_p, 1143), (CH_s,
        1111), (CH_u, 1117), (CH_v, 1130), (CH_w, 1096), (CH_LBRACE, 468)] la of Some st
        \<Rightarrow> ADVANCE st | None \<Rightarrow> (
      if (CH_TAB \<le> la \<and> la \<le> CH_CR) \<or> la = CH_SPACE then SKIP 248 else
      if mozcpp_starts_identifier la then ADVANCE 1152 else END_STATE))"

definition mozcpp_lex_249 :: "bool \<Rightarrow> codepoint \<Rightarrow> lex_case" where
  "mozcpp_lex_249 eof la = (None,
      case ADVANCE_MAP [(CH_AMP, 444), (CH_STAR, 431), (CH_DOT, 264), (CH_SLASH, 259), (CH_COLON,
        275), (CH_EQUALS, 475), (CH_BACKSLASH, 104), (CH_RBRACKET, 474)] la of Some st
        \<Rightarrow> ADVANCE st | None \<Rightarrow> (
      if (CH_TAB \<le> la \<and> la \<le> CH_CR) \<or> la = CH_SPACE then SKIP 249 else
      if mozcpp_starts_identifier la then ADVANCE 1152 else END_STATE))"

definition mozcpp_lex_250 :: "bool \<Rightarrow> codepoint \<Rightarrow> lex_case" where
  "mozcpp_lex_250 eof la = (None,
      if la = CH_QUOTE then ADVANCE 534 else
      if la = CH_SLASH then ADVANCE 259 else
      if la = CH_BACKSLASH then ADVANCE 112 else
      if (CH_TAB \<le> la \<and> la \<le> CH_CR) \<or> la = CH_SPACE then SKIP 250 else
        END_STATE)"

definition mozcpp_lex_251 :: "bool \<Rightarrow> codepoint \<Rightarrow> lex_case" where
  "mozcpp_lex_251 eof la = (None,
      if la = CH_QUOTE then ADVANCE 324 else
      if la = CH_P \<or> la = CH_p then ADVANCE 314 else
      if (CH_0 \<le> la \<and> la \<le> CH_9) \<or> (CH_A \<le> la \<and> la \<le> CH_F) \<or>
        (CH_a \<le> la \<and> la \<le> CH_f) then ADVANCE 251 else END_STATE)"

definition mozcpp_lex_252 :: "bool \<Rightarrow> codepoint \<Rightarrow> lex_case" where
  "mozcpp_lex_252 eof la = (None,
      if la = CH_QUOTE then ADVANCE 320 else
      if la = CH_DOT then ADVANCE 523 else
      if la = CH_E \<or> la = CH_e then ADVANCE 314 else
      if CH_0 \<le> la \<and> la \<le> CH_9 then ADVANCE 252 else END_STATE)"

definition mozcpp_lex_253 :: "bool \<Rightarrow> codepoint \<Rightarrow> lex_case" where
  "mozcpp_lex_253 eof la = (None,
      case ADVANCE_MAP [(CH_LPAREN, 410), (CH_RPAREN, 352), (CH_COMMA, 351), (CH_SLASH, 259),
        (CH_COLON, 491), (CH_SEMICOLON, 464), (CH_LT, 455), (CH_EQUALS, 475), (CH_GT, 1162),
        (CH_LBRACKET, 472), (CH_BACKSLASH, 106), (CH_RBRACKET, 474), (CH_LBRACE, 468)] la of Some
        st \<Rightarrow> ADVANCE st | None \<Rightarrow> (
      if (CH_TAB \<le> la \<and> la \<le> CH_CR) \<or> la = CH_SPACE then SKIP 253 else
      if mozcpp_starts_identifier la then ADVANCE 1152 else END_STATE))"

definition mozcpp_lex_254 :: "bool \<Rightarrow> codepoint \<Rightarrow> lex_case" where
  "mozcpp_lex_254 eof la = (None,
      case ADVANCE_MAP [(CH_LPAREN, 410), (CH_SLASH, 259), (CH_COLON, 275), (CH_F, 836), (CH_T,
        1012), (CH_LBRACKET, 470), (CH_BACKSLASH, 97), (CH_f, 1085), (CH_t, 1135), (CH_LBRACE,
        468)] la of Some st \<Rightarrow> ADVANCE st | None \<Rightarrow> (
      if (CH_TAB \<le> la \<and> la \<le> CH_CR) \<or> la = CH_SPACE then SKIP 254 else
      if mozcpp_starts_identifier la then ADVANCE 1152 else END_STATE))"

definition mozcpp_lex_255 :: "bool \<Rightarrow> codepoint \<Rightarrow> lex_case" where
  "mozcpp_lex_255 eof la = (None,
      if la = CH_LPAREN then ADVANCE 410 else
      if la = CH_SLASH then ADVANCE 259 else
      if la = CH_BACKSLASH then SKIP 120 else
      if (CH_TAB \<le> la \<and> la \<le> CH_CR) \<or> la = CH_SPACE then SKIP 255 else
        END_STATE)"

definition mozcpp_lex_256 :: "bool \<Rightarrow> codepoint \<Rightarrow> lex_case" where
  "mozcpp_lex_256 eof la = (None,
      if la = CH_RPAREN then ADVANCE 352 else
      if la = CH_SLASH then ADVANCE 259 else
      if la = CH_BACKSLASH then SKIP 122 else
      if (CH_TAB \<le> la \<and> la \<le> CH_CR) \<or> la = CH_SPACE then SKIP 256 else
      if (CH_A \<le> la \<and> la \<le> CH_Z) \<or> la = CH_UNDERSCORE then ADVANCE 341 else
        END_STATE)"

definition mozcpp_lex_257 :: "bool \<Rightarrow> codepoint \<Rightarrow> lex_case" where
  "mozcpp_lex_257 eof la = (None,
      if la = CH_RPAREN then ADVANCE 1170 else END_STATE)"

definition mozcpp_lex_258 :: "bool \<Rightarrow> codepoint \<Rightarrow> lex_case" where
  "mozcpp_lex_258 eof la = (None,
      if la = CH_STAR then ADVANCE 511 else END_STATE)"

definition mozcpp_lex_259 :: "bool \<Rightarrow> codepoint \<Rightarrow> lex_case" where
  "mozcpp_lex_259 eof la = (None,
      if la = CH_STAR then ADVANCE 262 else
      if la = CH_SLASH then ADVANCE 1160 else END_STATE)"

definition mozcpp_lex_260 :: "bool \<Rightarrow> codepoint \<Rightarrow> lex_case" where
  "mozcpp_lex_260 eof la = (None,
      if la = CH_STAR then ADVANCE 1169 else END_STATE)"

definition mozcpp_lex_261 :: "bool \<Rightarrow> codepoint \<Rightarrow> lex_case" where
  "mozcpp_lex_261 eof la = (None,
      if la = CH_STAR then ADVANCE 261 else
      if la = CH_SLASH then ADVANCE 1153 else
      if la \<noteq> 0 then ADVANCE 262 else END_STATE)"

definition mozcpp_lex_262 :: "bool \<Rightarrow> codepoint \<Rightarrow> lex_case" where
  "mozcpp_lex_262 eof la = (None,
      if la = CH_STAR then ADVANCE 261 else
      if la \<noteq> 0 then ADVANCE 262 else END_STATE)"

definition mozcpp_lex_263 :: "bool \<Rightarrow> codepoint \<Rightarrow> lex_case" where
  "mozcpp_lex_263 eof la = (None,
      if la = CH_STAR then ADVANCE 261 else
      if la \<noteq> 0 then ADVANCE 368 else END_STATE)"

definition mozcpp_lex_264 :: "bool \<Rightarrow> codepoint \<Rightarrow> lex_case" where
  "mozcpp_lex_264 eof la = (None,
      if la = CH_DOT then ADVANCE 266 else END_STATE)"

definition mozcpp_lex_265 :: "bool \<Rightarrow> codepoint \<Rightarrow> lex_case" where
  "mozcpp_lex_265 eof la = (None,
      if la = CH_DOT then ADVANCE 266 else
      if CH_0 \<le> la \<and> la \<le> CH_9 then ADVANCE 515 else END_STATE)"

definition mozcpp_lex_266 :: "bool \<Rightarrow> codepoint \<Rightarrow> lex_case" where
  "mozcpp_lex_266 eof la = (None,
      if la = CH_DOT then ADVANCE 350 else END_STATE)"

definition mozcpp_lex_267 :: "bool \<Rightarrow> codepoint \<Rightarrow> lex_case" where
  "mozcpp_lex_267 eof la = (None,
      if la = CH_DOT then ADVANCE 324 else
      if (CH_0 \<le> la \<and> la \<le> CH_9) \<or> (CH_A \<le> la \<and> la \<le> CH_F) \<or>
        (CH_a \<le> la \<and> la \<le> CH_f) then ADVANCE 521 else END_STATE)"

definition mozcpp_lex_268 :: "bool \<Rightarrow> codepoint \<Rightarrow> lex_case" where
  "mozcpp_lex_268 eof la = (None,
      if la = CH_SLASH then ADVANCE 375 else
      if la = CH_BACKSLASH then ADVANCE 370 else
      if (CH_TAB \<le> la \<and> la \<le> CH_CR) \<or> la = CH_SPACE then SKIP 268 else
      if la \<noteq> 0 then ADVANCE 377 else END_STATE)"

definition mozcpp_lex_269 :: "bool \<Rightarrow> codepoint \<Rightarrow> lex_case" where
  "mozcpp_lex_269 eof la = (None,
      if la = CH_1 then ADVANCE 273 else END_STATE)"

definition mozcpp_lex_270 :: "bool \<Rightarrow> codepoint \<Rightarrow> lex_case" where
  "mozcpp_lex_270 eof la = (None,
      if la = CH_2 then ADVANCE 514 else END_STATE)"

definition mozcpp_lex_271 :: "bool \<Rightarrow> codepoint \<Rightarrow> lex_case" where
  "mozcpp_lex_271 eof la = (None,
      if la = CH_2 then ADVANCE 274 else
      if la = CH_6 then ADVANCE 514 else END_STATE)"

definition mozcpp_lex_272 :: "bool \<Rightarrow> codepoint \<Rightarrow> lex_case" where
  "mozcpp_lex_272 eof la = (None,
      if la = CH_4 then ADVANCE 514 else END_STATE)"

definition mozcpp_lex_273 :: "bool \<Rightarrow> codepoint \<Rightarrow> lex_case" where
  "mozcpp_lex_273 eof la = (None,
      if la = CH_6 then ADVANCE 514 else END_STATE)"

definition mozcpp_lex_274 :: "bool \<Rightarrow> codepoint \<Rightarrow> lex_case" where
  "mozcpp_lex_274 eof la = (None,
      if la = CH_8 then ADVANCE 514 else END_STATE)"

definition mozcpp_lex_275 :: "bool \<Rightarrow> codepoint \<Rightarrow> lex_case" where
  "mozcpp_lex_275 eof la = (None,
      if la = CH_COLON then ADVANCE 465 else END_STATE)"

definition mozcpp_lex_276 :: "bool \<Rightarrow> codepoint \<Rightarrow> lex_case" where
  "mozcpp_lex_276 eof la = (None,
      if la = CH_LT then ADVANCE 460 else
      if la = CH_EQUALS then ADVANCE 453 else END_STATE)"

definition mozcpp_lex_277 :: "bool \<Rightarrow> codepoint \<Rightarrow> lex_case" where
  "mozcpp_lex_277 eof la = (None,
      if la = CH_EQUALS then ADVANCE 448 else END_STATE)"

definition mozcpp_lex_278 :: "bool \<Rightarrow> codepoint \<Rightarrow> lex_case" where
  "mozcpp_lex_278 eof la = (None,
      if la = CH_EQUALS then ADVANCE 447 else END_STATE)"

definition mozcpp_lex_279 :: "bool \<Rightarrow> codepoint \<Rightarrow> lex_case" where
  "mozcpp_lex_279 eof la = (None,
      if la = CH_EQUALS then ADVANCE 452 else
      if la = CH_GT then ADVANCE 462 else END_STATE)"

definition mozcpp_lex_280 :: "bool \<Rightarrow> codepoint \<Rightarrow> lex_case" where
  "mozcpp_lex_280 eof la = (None,
      if la = CH_EQUALS then ADVANCE 500 else END_STATE)"

definition mozcpp_lex_281 :: "bool \<Rightarrow> codepoint \<Rightarrow> lex_case" where
  "mozcpp_lex_281 eof la = (None,
      if la = CH_GT then ADVANCE 280 else END_STATE)"

definition mozcpp_lex_282 :: "bool \<Rightarrow> codepoint \<Rightarrow> lex_case" where
  "mozcpp_lex_282 eof la = (None,
      if la = CH_GT then ADVANCE 512 else END_STATE)"

definition mozcpp_lex_283 :: "bool \<Rightarrow> codepoint \<Rightarrow> lex_case" where
  "mozcpp_lex_283 eof la = (None,
      if la = CH_GT then ADVANCE 556 else
      if la = CH_BACKSLASH then ADVANCE 284 else
      if la \<noteq> 0 \<and> la \<noteq> CH_LF then ADVANCE 283 else END_STATE)"

definition mozcpp_lex_284 :: "bool \<Rightarrow> codepoint \<Rightarrow> lex_case" where
  "mozcpp_lex_284 eof la = (None,
      if la = CH_GT then ADVANCE 557 else
      if la = CH_BACKSLASH then ADVANCE 284 else
      if la \<noteq> 0 \<and> la \<noteq> CH_LF then ADVANCE 283 else END_STATE)"

definition mozcpp_lex_285 :: "bool \<Rightarrow> codepoint \<Rightarrow> lex_case" where
  "mozcpp_lex_285 eof la = (None,
      if la = CH_F then ADVANCE 269 else END_STATE)"

definition mozcpp_lex_286 :: "bool \<Rightarrow> codepoint \<Rightarrow> lex_case" where
  "mozcpp_lex_286 eof la = (None,
      if la = CH_U then ADVANCE 339 else
      if la = CH_u then ADVANCE 331 else END_STATE)"

definition mozcpp_lex_287 :: "bool \<Rightarrow> codepoint \<Rightarrow> lex_case" where
  "mozcpp_lex_287 eof la = (None,
      if la = CH_LBRACKET then ADVANCE 466 else
      if la = CH_RBRACKET then ADVANCE 1171 else END_STATE)"

definition mozcpp_lex_288 :: "bool \<Rightarrow> codepoint \<Rightarrow> lex_case" where
  "mozcpp_lex_288 eof la = (None,
      if la = CH_RBRACKET then ADVANCE 1171 else END_STATE)"

definition mozcpp_lex_289 :: "bool \<Rightarrow> codepoint \<Rightarrow> lex_case" where
  "mozcpp_lex_289 eof la = (None,
      if la = CH_RBRACKET then ADVANCE 467 else END_STATE)"

definition mozcpp_lex_290 :: "bool \<Rightarrow> codepoint \<Rightarrow> lex_case" where
  "mozcpp_lex_290 eof la = (None,
      if la = CH_d then ADVANCE 384 else
      if la = CH_e then ADVANCE 404 else
      if la = CH_i then ADVANCE 392 else
      if la = CH_TAB \<or> la = CH_SPACE then ADVANCE 290 else
      if (CH_0 \<le> la \<and> la \<le> CH_9) \<or> (CH_A \<le> la \<and> la \<le> CH_Z) \<or>
        (CH_a \<le> la \<and> la \<le> CH_z) then ADVANCE 409 else END_STATE)"

definition mozcpp_lex_291 :: "bool \<Rightarrow> codepoint \<Rightarrow> lex_case" where
  "mozcpp_lex_291 eof la = (None,
      if la = CH_d then ADVANCE 384 else
      if la = CH_e then ADVANCE 404 else
      if la = CH_i then ADVANCE 393 else
      if la = CH_TAB \<or> la = CH_SPACE then ADVANCE 291 else
      if (CH_0 \<le> la \<and> la \<le> CH_9) \<or> (CH_A \<le> la \<and> la \<le> CH_Z) \<or>
        (CH_a \<le> la \<and> la \<le> CH_z) then ADVANCE 409 else END_STATE)"

definition mozcpp_lex_292 :: "bool \<Rightarrow> codepoint \<Rightarrow> lex_case" where
  "mozcpp_lex_292 eof la = (None,
      if la = CH_d then ADVANCE 384 else
      if la = CH_e then ADVANCE 406 else
      if la = CH_i then ADVANCE 392 else
      if la = CH_TAB \<or> la = CH_SPACE then ADVANCE 292 else
      if (CH_0 \<le> la \<and> la \<le> CH_9) \<or> (CH_A \<le> la \<and> la \<le> CH_Z) \<or>
        (CH_a \<le> la \<and> la \<le> CH_z) then ADVANCE 409 else END_STATE)"

definition mozcpp_lex_293 :: "bool \<Rightarrow> codepoint \<Rightarrow> lex_case" where
  "mozcpp_lex_293 eof la = (None,
      if la = CH_d then ADVANCE 384 else
      if la = CH_e then ADVANCE 406 else
      if la = CH_i then ADVANCE 393 else
      if la = CH_TAB \<or> la = CH_SPACE then ADVANCE 293 else
      if (CH_0 \<le> la \<and> la \<le> CH_9) \<or> (CH_A \<le> la \<and> la \<le> CH_Z) \<or>
        (CH_a \<le> la \<and> la \<le> CH_z) then ADVANCE 409 else END_STATE)"

definition mozcpp_lex_294 :: "bool \<Rightarrow> codepoint \<Rightarrow> lex_case" where
  "mozcpp_lex_294 eof la = (None,
      if la = CH_d then ADVANCE 384 else
      if la = CH_i then ADVANCE 392 else
      if la = CH_TAB \<or> la = CH_SPACE then ADVANCE 294 else
      if (CH_0 \<le> la \<and> la \<le> CH_9) \<or> (CH_A \<le> la \<and> la \<le> CH_Z) \<or>
        (CH_a \<le> la \<and> la \<le> CH_z) then ADVANCE 409 else END_STATE)"

definition mozcpp_lex_295 :: "bool \<Rightarrow> codepoint \<Rightarrow> lex_case" where
  "mozcpp_lex_295 eof la = (None,
      if la = CH_d then ADVANCE 384 else
      if la = CH_i then ADVANCE 393 else
      if la = CH_TAB \<or> la = CH_SPACE then ADVANCE 295 else
      if (CH_0 \<le> la \<and> la \<le> CH_9) \<or> (CH_A \<le> la \<and> la \<le> CH_Z) \<or>
        (CH_a \<le> la \<and> la \<le> CH_z) then ADVANCE 409 else END_STATE)"

definition mozcpp_lex_296 :: "bool \<Rightarrow> codepoint \<Rightarrow> lex_case" where
  "mozcpp_lex_296 eof la = (None,
      if la = CH_d then ADVANCE 308 else END_STATE)"

definition mozcpp_lex_297 :: "bool \<Rightarrow> codepoint \<Rightarrow> lex_case" where
  "mozcpp_lex_297 eof la = (None,
      if la = CH_d then ADVANCE 302 else END_STATE)"

definition mozcpp_lex_298 :: "bool \<Rightarrow> codepoint \<Rightarrow> lex_case" where
  "mozcpp_lex_298 eof la = (None,
      if la = CH_e then ADVANCE 312 else
      if la = CH_TAB \<or> la = CH_SPACE then ADVANCE 298 else END_STATE)"

definition mozcpp_lex_299 :: "bool \<Rightarrow> codepoint \<Rightarrow> lex_case" where
  "mozcpp_lex_299 eof la = (None,
      if la = CH_e then ADVANCE 311 else
      if la = CH_TAB \<or> la = CH_SPACE then ADVANCE 299 else END_STATE)"

definition mozcpp_lex_300 :: "bool \<Rightarrow> codepoint \<Rightarrow> lex_case" where
  "mozcpp_lex_300 eof la = (None,
      if la = CH_e then ADVANCE 359 else END_STATE)"

definition mozcpp_lex_301 :: "bool \<Rightarrow> codepoint \<Rightarrow> lex_case" where
  "mozcpp_lex_301 eof la = (None,
      if la = CH_e then ADVANCE 306 else END_STATE)"

definition mozcpp_lex_302 :: "bool \<Rightarrow> codepoint \<Rightarrow> lex_case" where
  "mozcpp_lex_302 eof la = (None,
      if la = CH_e then ADVANCE 307 else END_STATE)"

definition mozcpp_lex_303 :: "bool \<Rightarrow> codepoint \<Rightarrow> lex_case" where
  "mozcpp_lex_303 eof la = (None,
      if la = CH_f then ADVANCE 269 else END_STATE)"

definition mozcpp_lex_304 :: "bool \<Rightarrow> codepoint \<Rightarrow> lex_case" where
  "mozcpp_lex_304 eof la = (None,
      if la = CH_f then ADVANCE 355 else END_STATE)"

definition mozcpp_lex_305 :: "bool \<Rightarrow> codepoint \<Rightarrow> lex_case" where
  "mozcpp_lex_305 eof la = (None,
      if la = CH_f then ADVANCE 361 else END_STATE)"

definition mozcpp_lex_306 :: "bool \<Rightarrow> codepoint \<Rightarrow> lex_case" where
  "mozcpp_lex_306 eof la = (None,
      if la = CH_f then ADVANCE 363 else END_STATE)"

definition mozcpp_lex_307 :: "bool \<Rightarrow> codepoint \<Rightarrow> lex_case" where
  "mozcpp_lex_307 eof la = (None,
      if la = CH_f then ADVANCE 365 else END_STATE)"

definition mozcpp_lex_308 :: "bool \<Rightarrow> codepoint \<Rightarrow> lex_case" where
  "mozcpp_lex_308 eof la = (None,
      if la = CH_i then ADVANCE 304 else END_STATE)"

definition mozcpp_lex_309 :: "bool \<Rightarrow> codepoint \<Rightarrow> lex_case" where
  "mozcpp_lex_309 eof la = (None,
      if la = CH_i then ADVANCE 305 else
      if la = CH_s then ADVANCE 300 else END_STATE)"

definition mozcpp_lex_310 :: "bool \<Rightarrow> codepoint \<Rightarrow> lex_case" where
  "mozcpp_lex_310 eof la = (None,
      if la = CH_i then ADVANCE 393 else
      if la = CH_TAB \<or> la = CH_SPACE then ADVANCE 310 else
      if (CH_0 \<le> la \<and> la \<le> CH_9) \<or> (CH_A \<le> la \<and> la \<le> CH_Z) \<or>
        (CH_a \<le> la \<and> la \<le> CH_z) then ADVANCE 409 else END_STATE)"

definition mozcpp_lex_311 :: "bool \<Rightarrow> codepoint \<Rightarrow> lex_case" where
  "mozcpp_lex_311 eof la = (None,
      if la = CH_l then ADVANCE 309 else
      if la = CH_n then ADVANCE 296 else END_STATE)"

definition mozcpp_lex_312 :: "bool \<Rightarrow> codepoint \<Rightarrow> lex_case" where
  "mozcpp_lex_312 eof la = (None,
      if la = CH_n then ADVANCE 296 else END_STATE)"

definition mozcpp_lex_313 :: "bool \<Rightarrow> codepoint \<Rightarrow> lex_case" where
  "mozcpp_lex_313 eof la = (None,
      if la = CH_BAR then ADVANCE 437 else END_STATE)"

definition mozcpp_lex_314 :: "bool \<Rightarrow> codepoint \<Rightarrow> lex_case" where
  "mozcpp_lex_314 eof la = (None,
      if la = CH_PLUS \<or> la = CH_MINUS then ADVANCE 321 else
      if CH_0 \<le> la \<and> la \<le> CH_9 then ADVANCE 520 else END_STATE)"

definition mozcpp_lex_315 :: "bool \<Rightarrow> codepoint \<Rightarrow> lex_case" where
  "mozcpp_lex_315 eof la = (None,
      if la = CH_P \<or> la = CH_p then ADVANCE 314 else
      if (CH_0 \<le> la \<and> la \<le> CH_9) \<or> (CH_A \<le> la \<and> la \<le> CH_F) \<or>
        (CH_a \<le> la \<and> la \<le> CH_f) then ADVANCE 251 else END_STATE)"

definition mozcpp_lex_316 :: "bool \<Rightarrow> codepoint \<Rightarrow> lex_case" where
  "mozcpp_lex_316 eof la = (None,
      if la = CH_0 \<or> la = CH_1 then ADVANCE 518 else END_STATE)"

definition mozcpp_lex_317 :: "bool \<Rightarrow> codepoint \<Rightarrow> lex_case" where
  "mozcpp_lex_317 eof la = (None,
      if la = CH_8 \<or> la = CH_9 then ADVANCE 252 else
      if CH_0 \<le> la \<and> la \<le> CH_7 then ADVANCE 517 else END_STATE)"

definition mozcpp_lex_318 :: "bool \<Rightarrow> codepoint \<Rightarrow> lex_case" where
  "mozcpp_lex_318 eof la = (None,
      if CH_0 \<le> la \<and> la \<le> CH_9 then ADVANCE 519 else END_STATE)"

definition mozcpp_lex_319 :: "bool \<Rightarrow> codepoint \<Rightarrow> lex_case" where
  "mozcpp_lex_319 eof la = (None,
      if CH_0 \<le> la \<and> la \<le> CH_9 then ADVANCE 515 else END_STATE)"

definition mozcpp_lex_320 :: "bool \<Rightarrow> codepoint \<Rightarrow> lex_case" where
  "mozcpp_lex_320 eof la = (None,
      if CH_0 \<le> la \<and> la \<le> CH_9 then ADVANCE 252 else END_STATE)"

definition mozcpp_lex_321 :: "bool \<Rightarrow> codepoint \<Rightarrow> lex_case" where
  "mozcpp_lex_321 eof la = (None,
      if CH_0 \<le> la \<and> la \<le> CH_9 then ADVANCE 520 else END_STATE)"

definition mozcpp_lex_322 :: "bool \<Rightarrow> codepoint \<Rightarrow> lex_case" where
  "mozcpp_lex_322 eof la = (None,
      if (CH_0 \<le> la \<and> la \<le> CH_9) \<or> (CH_A \<le> la \<and> la \<le> CH_F) \<or>
        (CH_a \<le> la \<and> la \<le> CH_f) then ADVANCE 1152 else END_STATE)"

definition mozcpp_lex_323 :: "bool \<Rightarrow> codepoint \<Rightarrow> lex_case" where
  "mozcpp_lex_323 eof la = (None,
      if (CH_0 \<le> la \<and> la \<le> CH_9) \<or> (CH_A \<le> la \<and> la \<le> CH_F) \<or>
        (CH_a \<le> la \<and> la \<le> CH_f) then ADVANCE 521 else END_STATE)"

definition mozcpp_lex_324 :: "bool \<Rightarrow> codepoint \<Rightarrow> lex_case" where
  "mozcpp_lex_324 eof la = (None,
      if (CH_0 \<le> la \<and> la \<le> CH_9) \<or> (CH_A \<le> la \<and> la \<le> CH_F) \<or>
        (CH_a \<le> la \<and> la \<le> CH_f) then ADVANCE 251 else END_STATE)"

definition mozcpp_lex_325 :: "bool \<Rightarrow> codepoint \<Rightarrow> lex_case" where
  "mozcpp_lex_325 eof la = (None,
      if (CH_0 \<le> la \<and> la \<le> CH_9) \<or> (CH_A \<le> la \<and> la \<le> CH_F) \<or>
        (CH_a \<le> la \<and> la \<le> CH_f) then ADVANCE 549 else END_STATE)"

definition mozcpp_lex_326 :: "bool \<Rightarrow> codepoint \<Rightarrow> lex_case" where
  "mozcpp_lex_326 eof la = (None,
      if (CH_0 \<le> la \<and> la \<le> CH_9) \<or> (CH_A \<le> la \<and> la \<le> CH_F) \<or>
        (CH_a \<le> la \<and> la \<le> CH_f) then ADVANCE 555 else END_STATE)"

definition mozcpp_lex_327 :: "bool \<Rightarrow> codepoint \<Rightarrow> lex_case" where
  "mozcpp_lex_327 eof la = (None,
      if (CH_0 \<le> la \<and> la \<le> CH_9) \<or> (CH_A \<le> la \<and> la \<le> CH_F) \<or>
        (CH_a \<le> la \<and> la \<le> CH_f) then ADVANCE 322 else END_STATE)"

definition mozcpp_lex_328 :: "bool \<Rightarrow> codepoint \<Rightarrow> lex_case" where
  "mozcpp_lex_328 eof la = (None,
      if (CH_0 \<le> la \<and> la \<le> CH_9) \<or> (CH_A \<le> la \<and> la \<le> CH_F) \<or>
        (CH_a \<le> la \<and> la \<le> CH_f) then ADVANCE 325 else END_STATE)"

definition mozcpp_lex_329 :: "bool \<Rightarrow> codepoint \<Rightarrow> lex_case" where
  "mozcpp_lex_329 eof la = (None,
      if (CH_0 \<le> la \<and> la \<le> CH_9) \<or> (CH_A \<le> la \<and> la \<le> CH_F) \<or>
        (CH_a \<le> la \<and> la \<le> CH_f) then ADVANCE 327 else END_STATE)"

definition mozcpp_lex_330 :: "bool \<Rightarrow> codepoint \<Rightarrow> lex_case" where
  "mozcpp_lex_330 eof la = (None,
      if (CH_0 \<le> la \<and> la \<le> CH_9) \<or> (CH_A \<le> la \<and> la \<le> CH_F) \<or>
        (CH_a \<le> la \<and> la \<le> CH_f) then ADVANCE 328 else END_STATE)"

definition mozcpp_lex_331 :: "bool \<Rightarrow> codepoint \<Rightarrow> lex_case" where
  "mozcpp_lex_331 eof la = (None,
      if (CH_0 \<le> la \<and> la \<le> CH_9) \<or> (CH_A \<le> la \<and> la \<le> CH_F) \<or>
        (CH_a \<le> la \<and> la \<le> CH_f) then ADVANCE 329 else END_STATE)"

definition mozcpp_lex_332 :: "bool \<Rightarrow> codepoint \<Rightarrow> lex_case" where
  "mozcpp_lex_332 eof la = (None,
      if (CH_0 \<le> la \<and> la \<le> CH_9) \<or> (CH_A \<le> la \<and> la \<le> CH_F) \<or>
        (CH_a \<le> la \<and> la \<le> CH_f) then ADVANCE 330 else END_STATE)"

definition mozcpp_lex_333 :: "bool \<Rightarrow> codepoint \<Rightarrow> lex_case" where
  "mozcpp_lex_333 eof la = (None,
      if (CH_0 \<le> la \<and> la \<le> CH_9) \<or> (CH_A \<le> la \<and> la \<le> CH_F) \<or>
        (CH_a \<le> la \<and> la \<le> CH_f) then ADVANCE 331 else END_STATE)"

definition mozcpp_lex_334 :: "bool \<Rightarrow> codepoint \<Rightarrow> lex_case" where
  "mozcpp_lex_334 eof la = (None,
      if (CH_0 \<le> la \<and> la \<le> CH_9) \<or> (CH_A \<le> la \<and> la \<le> CH_F) \<or>
        (CH_a \<le> la \<and> la \<le> CH_f) then ADVANCE 332 else END_STATE)"

definition mozcpp_lex_335 :: "bool \<Rightarrow> codepoint \<Rightarrow> lex_case" where
  "mozcpp_lex_335 eof la = (None,
      if (CH_0 \<le> la \<and> la \<le> CH_9) \<or> (CH_A \<le> la \<and> la \<le> CH_F) \<or>
        (CH_a \<le> la \<and> la \<le> CH_f) then ADVANCE 333 else END_STATE)"

definition mozcpp_lex_336 :: "bool \<Rightarrow> codepoint \<Rightarrow> lex_case" where
  "mozcpp_lex_336 eof la = (None,
      if (CH_0 \<le> la \<and> la \<le> CH_9) \<or> (CH_A \<le> la \<and> la \<le> CH_F) \<or>
        (CH_a \<le> la \<and> la \<le> CH_f) then ADVANCE 334 else END_STATE)"

definition mozcpp_lex_337 :: "bool \<Rightarrow> codepoint \<Rightarrow> lex_case" where
  "mozcpp_lex_337 eof la = (None,
      if (CH_0 \<le> la \<and> la \<le> CH_9) \<or> (CH_A \<le> la \<and> la \<le> CH_F) \<or>
        (CH_a \<le> la \<and> la \<le> CH_f) then ADVANCE 335 else END_STATE)"

definition mozcpp_lex_338 :: "bool \<Rightarrow> codepoint \<Rightarrow> lex_case" where
  "mozcpp_lex_338 eof la = (None,
      if (CH_0 \<le> la \<and> la \<le> CH_9) \<or> (CH_A \<le> la \<and> la \<le> CH_F) \<or>
        (CH_a \<le> la \<and> la \<le> CH_f) then ADVANCE 336 else END_STATE)"

definition mozcpp_lex_339 :: "bool \<Rightarrow> codepoint \<Rightarrow> lex_case" where
  "mozcpp_lex_339 eof la = (None,
      if (CH_0 \<le> la \<and> la \<le> CH_9) \<or> (CH_A \<le> la \<and> la \<le> CH_F) \<or>
        (CH_a \<le> la \<and> la \<le> CH_f) then ADVANCE 337 else END_STATE)"

definition mozcpp_lex_340 :: "bool \<Rightarrow> codepoint \<Rightarrow> lex_case" where
  "mozcpp_lex_340 eof la = (None,
      if (CH_0 \<le> la \<and> la \<le> CH_9) \<or> (CH_A \<le> la \<and> la \<le> CH_F) \<or>
        (CH_a \<le> la \<and> la \<le> CH_f) then ADVANCE 338 else END_STATE)"

definition mozcpp_lex_341 :: "bool \<Rightarrow> codepoint \<Rightarrow> lex_case" where
  "mozcpp_lex_341 eof la = (None,
      if (CH_0 \<le> la \<and> la \<le> CH_9) \<or> (CH_A \<le> la \<and> la \<le> CH_Z) \<or> la
        = CH_UNDERSCORE then ADVANCE 1184 else END_STATE)"

definition mozcpp_lex_342 :: "bool \<Rightarrow> codepoint \<Rightarrow> lex_case" where
  "mozcpp_lex_342 eof la = (None,
      if la \<noteq> 0 \<and> la \<noteq> CH_STAR then ADVANCE 377 else END_STATE)"

definition mozcpp_lex_343 :: "bool \<Rightarrow> codepoint \<Rightarrow> lex_case" where
  "mozcpp_lex_343 eof la = (None,
      if eof then ADVANCE 345 else
      case ADVANCE_MAP [(CH_BANG, 412), (CH_DQUOTE, 543), (CH_HASH, 290), (CH_PERCENT, 436),
        (CH_AMP, 446), (CH_QUOTE, 534), (CH_LPAREN, 410), (CH_RPAREN, 352), (CH_STAR, 432),
        (CH_PLUS, 426), (CH_COMMA, 351), (CH_MINUS, 415), (CH_DOT, 508), (CH_SLASH, 434), (CH_0,
        516), (CH_COLON, 492), (CH_SEMICOLON, 464), (CH_LT, 456), (CH_EQUALS, 476), (CH_GT,
        1162), (CH_QMARK, 493), (CH_A, 1005), (CH_B, 985), (CH_C, 862), (CH_D, 1066), (CH_F,
        835), (CH_H, 830), (CH_I, 961), (CH_L, 794), (CH_P, 854), (CH_Q, 1067), (CH_R, 799),
        (CH_S, 867), (CH_T, 855), (CH_U, 800), (CH_V, 992), (CH_W, 865), (CH_LBRACKET, 472),
        (CH_BACKSLASH, 2), (CH_RBRACKET, 474), (CH_CARET, 443), (CH_b, 1132), (CH_c, 1109),
        (CH_d, 1127), (CH_f, 1084), (CH_i, 1124), (CH_m, 1086), (CH_p, 1143), (CH_s, 1111),
        (CH_t, 1135), (CH_u, 805), (CH_v, 1130), (CH_w, 1096), (CH_LBRACE, 468), (CH_BAR, 440),
        (CH_RBRACE, 469), (CH_TILDE, 413)] la of Some st \<Rightarrow> ADVANCE st | None
        \<Rightarrow> (
      if (CH_TAB \<le> la \<and> la \<le> CH_CR) \<or> la = CH_SPACE then SKIP 343 else
      if CH_1 \<le> la \<and> la \<le> CH_9 then ADVANCE 519 else
      if mozcpp_starts_identifier la then ADVANCE 1152 else END_STATE))"

definition mozcpp_lex_344 :: "bool \<Rightarrow> codepoint \<Rightarrow> lex_case" where
  "mozcpp_lex_344 eof la = (None,
      if eof then ADVANCE 345 else
      case ADVANCE_MAP [(CH_BANG, 411), (CH_DQUOTE, 543), (CH_HASH, 294), (CH_PERCENT, 435),
        (CH_AMP, 445), (CH_QUOTE, 534), (CH_LPAREN, 410), (CH_RPAREN, 352), (CH_STAR, 431),
        (CH_PLUS, 427), (CH_COMMA, 351), (CH_MINUS, 418), (CH_DOT, 265), (CH_SLASH, 433), (CH_0,
        516), (CH_COLON, 275), (CH_SEMICOLON, 464), (CH_LT, 455), (CH_EQUALS, 475), (CH_GT,
        1162), (CH_A, 1007), (CH_B, 984), (CH_C, 872), (CH_D, 1065), (CH_F, 839), (CH_H, 834),
        (CH_I, 964), (CH_L, 793), (CH_P, 859), (CH_Q, 1068), (CH_R, 798), (CH_S, 874), (CH_T,
        860), (CH_U, 801), (CH_V, 996), (CH_W, 873), (CH_LBRACKET, 471), (CH_BACKSLASH, 4),
        (CH_RBRACKET, 474), (CH_CARET, 442), (CH_b, 1132), (CH_c, 1109), (CH_d, 1127), (CH_f,
        1084), (CH_i, 1124), (CH_m, 1086), (CH_p, 1143), (CH_s, 1111), (CH_t, 1135), (CH_u, 805),
        (CH_v, 1130), (CH_w, 1096), (CH_LBRACE, 468), (CH_BAR, 313), (CH_RBRACE, 469), (CH_TILDE,
        413)] la of Some st \<Rightarrow> ADVANCE st | None \<Rightarrow> (
      if (CH_TAB \<le> la \<and> la \<le> CH_CR) \<or> la = CH_SPACE then SKIP 344 else
      if CH_1 \<le> la \<and> la \<le> CH_9 then ADVANCE 519 else
      if CH_E \<le> la \<and> la \<le> CH_UNDERSCORE then ADVANCE 1151 else
      if mozcpp_starts_identifier la then ADVANCE 1152 else END_STATE))"

definition mozcpp_lex_345 :: "bool \<Rightarrow> codepoint \<Rightarrow> lex_case" where
  "mozcpp_lex_345 eof la = (Some ts_builtin_sym_end, END_STATE)"

definition mozcpp_lex_346 :: "bool \<Rightarrow> codepoint \<Rightarrow> lex_case" where
  "mozcpp_lex_346 eof la = (Some mozcpp_aux_sym_preproc_include_token1,
      if (CH_0 \<le> la \<and> la \<le> CH_9) \<or> (CH_A \<le> la \<and> la \<le> CH_Z) \<or> la
        = CH_UNDERSCORE \<or> (CH_a \<le> la \<and> la \<le> CH_z) then ADVANCE 409 else
        END_STATE)"

definition mozcpp_lex_347 :: "bool \<Rightarrow> codepoint \<Rightarrow> lex_case" where
  "mozcpp_lex_347 eof la = (Some mozcpp_aux_sym_preproc_include_token2, END_STATE)"

definition mozcpp_lex_348 :: "bool \<Rightarrow> codepoint \<Rightarrow> lex_case" where
  "mozcpp_lex_348 eof la = (Some mozcpp_aux_sym_preproc_def_token1,
      if (CH_0 \<le> la \<and> la \<le> CH_9) \<or> (CH_A \<le> la \<and> la \<le> CH_Z) \<or> la
        = CH_UNDERSCORE \<or> (CH_a \<le> la \<and> la \<le> CH_z) then ADVANCE 409 else
        END_STATE)"

definition mozcpp_lex_349 :: "bool \<Rightarrow> codepoint \<Rightarrow> lex_case" where
  "mozcpp_lex_349 eof la = (Some mozcpp_anon_sym_LPAREN, END_STATE)"

definition mozcpp_lex_350 :: "bool \<Rightarrow> codepoint \<Rightarrow> lex_case" where
  "mozcpp_lex_350 eof la = (Some mozcpp_anon_sym_DOT_DOT_DOT, END_STATE)"

definition mozcpp_lex_351 :: "bool \<Rightarrow> codepoint \<Rightarrow> lex_case" where
  "mozcpp_lex_351 eof la = (Some mozcpp_anon_sym_COMMA, END_STATE)"

definition mozcpp_lex_352 :: "bool \<Rightarrow> codepoint \<Rightarrow> lex_case" where
  "mozcpp_lex_352 eof la = (Some mozcpp_anon_sym_RPAREN, END_STATE)"

definition mozcpp_lex_353 :: "bool \<Rightarrow> codepoint \<Rightarrow> lex_case" where
  "mozcpp_lex_353 eof la = (Some mozcpp_aux_sym_preproc_if_token1,
      if la = CH_d then ADVANCE 388 else
      if la = CH_n then ADVANCE 382 else
      if (CH_0 \<le> la \<and> la \<le> CH_9) \<or> (CH_A \<le> la \<and> la \<le> CH_Z) \<or> la
        = CH_UNDERSCORE \<or> (CH_a \<le> la \<and> la \<le> CH_z) then ADVANCE 409 else
        END_STATE)"

definition mozcpp_lex_354 :: "bool \<Rightarrow> codepoint \<Rightarrow> lex_case" where
  "mozcpp_lex_354 eof la = (Some mozcpp_anon_sym_LF,
      if la = CH_LF then ADVANCE 354 else END_STATE)"

definition mozcpp_lex_355 :: "bool \<Rightarrow> codepoint \<Rightarrow> lex_case" where
  "mozcpp_lex_355 eof la = (Some mozcpp_aux_sym_preproc_if_token2, END_STATE)"

definition mozcpp_lex_356 :: "bool \<Rightarrow> codepoint \<Rightarrow> lex_case" where
  "mozcpp_lex_356 eof la = (Some mozcpp_aux_sym_preproc_if_token2,
      if (CH_0 \<le> la \<and> la \<le> CH_9) \<or> (CH_A \<le> la \<and> la \<le> CH_Z) \<or> la
        = CH_UNDERSCORE \<or> (CH_a \<le> la \<and> la \<le> CH_z) then ADVANCE 409 else
        END_STATE)"

definition mozcpp_lex_357 :: "bool \<Rightarrow> codepoint \<Rightarrow> lex_case" where
  "mozcpp_lex_357 eof la = (Some mozcpp_aux_sym_preproc_ifdef_token1,
      if (CH_0 \<le> la \<and> la \<le> CH_9) \<or> (CH_A \<le> la \<and> la \<le> CH_Z) \<or> la
        = CH_UNDERSCORE \<or> (CH_a \<le> la \<and> la \<le> CH_z) then ADVANCE 409 else
        END_STATE)"

definition mozcpp_lex_358 :: "bool \<Rightarrow> codepoint \<Rightarrow> lex_case" where
  "mozcpp_lex_358 eof la = (Some mozcpp_aux_sym_preproc_ifdef_token2,
      if (CH_0 \<le> la \<and> la \<le> CH_9) \<or> (CH_A \<le> la \<and> la \<le> CH_Z) \<or> la
        = CH_UNDERSCORE \<or> (CH_a \<le> la \<and> la \<le> CH_z) then ADVANCE 409 else
        END_STATE)"

definition mozcpp_lex_359 :: "bool \<Rightarrow> codepoint \<Rightarrow> lex_case" where
  "mozcpp_lex_359 eof la = (Some mozcpp_aux_sym_preproc_else_token1, END_STATE)"

definition mozcpp_lex_360 :: "bool \<Rightarrow> codepoint \<Rightarrow> lex_case" where
  "mozcpp_lex_360 eof la = (Some mozcpp_aux_sym_preproc_else_token1,
      if (CH_0 \<le> la \<and> la \<le> CH_9) \<or> (CH_A \<le> la \<and> la \<le> CH_Z) \<or> la
        = CH_UNDERSCORE \<or> (CH_a \<le> la \<and> la \<le> CH_z) then ADVANCE 409 else
        END_STATE)"

definition mozcpp_lex_361 :: "bool \<Rightarrow> codepoint \<Rightarrow> lex_case" where
  "mozcpp_lex_361 eof la = (Some mozcpp_aux_sym_preproc_elif_token1,
      if la = CH_d then ADVANCE 301 else
      if la = CH_n then ADVANCE 297 else END_STATE)"

definition mozcpp_lex_362 :: "bool \<Rightarrow> codepoint \<Rightarrow> lex_case" where
  "mozcpp_lex_362 eof la = (Some mozcpp_aux_sym_preproc_elif_token1,
      if la = CH_d then ADVANCE 390 else
      if la = CH_n then ADVANCE 383 else
      if (CH_0 \<le> la \<and> la \<le> CH_9) \<or> (CH_A \<le> la \<and> la \<le> CH_Z) \<or> la
        = CH_UNDERSCORE \<or> (CH_a \<le> la \<and> la \<le> CH_z) then ADVANCE 409 else
        END_STATE)"

definition mozcpp_lex_363 :: "bool \<Rightarrow> codepoint \<Rightarrow> lex_case" where
  "mozcpp_lex_363 eof la = (Some mozcpp_aux_sym_preproc_elifdef_token1, END_STATE)"

definition mozcpp_lex_364 :: "bool \<Rightarrow> codepoint \<Rightarrow> lex_case" where
  "mozcpp_lex_364 eof la = (Some mozcpp_aux_sym_preproc_elifdef_token1,
      if (CH_0 \<le> la \<and> la \<le> CH_9) \<or> (CH_A \<le> la \<and> la \<le> CH_Z) \<or> la
        = CH_UNDERSCORE \<or> (CH_a \<le> la \<and> la \<le> CH_z) then ADVANCE 409 else
        END_STATE)"

definition mozcpp_lex_365 :: "bool \<Rightarrow> codepoint \<Rightarrow> lex_case" where
  "mozcpp_lex_365 eof la = (Some mozcpp_aux_sym_preproc_elifdef_token2, END_STATE)"

definition mozcpp_lex_366 :: "bool \<Rightarrow> codepoint \<Rightarrow> lex_case" where
  "mozcpp_lex_366 eof la = (Some mozcpp_aux_sym_preproc_elifdef_token2,
      if (CH_0 \<le> la \<and> la \<le> CH_9) \<or> (CH_A \<le> la \<and> la \<le> CH_Z) \<or> la
        = CH_UNDERSCORE \<or> (CH_a \<le> la \<and> la \<le> CH_z) then ADVANCE 409 else
        END_STATE)"

definition mozcpp_lex_367 :: "bool \<Rightarrow> codepoint \<Rightarrow> lex_case" where
  "mozcpp_lex_367 eof la = (Some mozcpp_sym_preproc_arg,
      if la = CH_LF then ADVANCE 262 else
      if la = CH_STAR then ADVANCE 367 else
      if la = CH_SLASH then ADVANCE 1153 else
      if la = CH_BACKSLASH then ADVANCE 373 else
      if la \<noteq> 0 then ADVANCE 368 else END_STATE)"

definition mozcpp_lex_368 :: "bool \<Rightarrow> codepoint \<Rightarrow> lex_case" where
  "mozcpp_lex_368 eof la = (Some mozcpp_sym_preproc_arg,
      if la = CH_LF then ADVANCE 262 else
      if la = CH_STAR then ADVANCE 367 else
      if la = CH_SLASH then ADVANCE 263 else
      if la = CH_BACKSLASH then ADVANCE 373 else
      if la \<noteq> 0 then ADVANCE 368 else END_STATE)"

definition mozcpp_lex_369 :: "bool \<Rightarrow> codepoint \<Rightarrow> lex_case" where
  "mozcpp_lex_369 eof la = (Some mozcpp_sym_preproc_arg,
      if la = CH_LF then ADVANCE 1160 else
      if la = CH_CR then ADVANCE 1154 else
      if la = CH_SLASH then ADVANCE 1157 else
      if la = CH_BACKSLASH then ADVANCE 1156 else
      if la \<noteq> 0 then ADVANCE 1158 else END_STATE)"

definition mozcpp_lex_370 :: "bool \<Rightarrow> codepoint \<Rightarrow> lex_case" where
  "mozcpp_lex_370 eof la = (Some mozcpp_sym_preproc_arg,
      if la = CH_LF then SKIP 268 else
      if la = CH_CR then ADVANCE 371 else
      if la = CH_SLASH then ADVANCE 342 else
      if la = CH_BACKSLASH then ADVANCE 372 else
      if la \<noteq> 0 then ADVANCE 377 else END_STATE)"

definition mozcpp_lex_371 :: "bool \<Rightarrow> codepoint \<Rightarrow> lex_case" where
  "mozcpp_lex_371 eof la = (Some mozcpp_sym_preproc_arg,
      if la = CH_LF then SKIP 268 else
      if la = CH_SLASH then ADVANCE 342 else
      if la = CH_BACKSLASH then ADVANCE 372 else
      if la \<noteq> 0 then ADVANCE 377 else END_STATE)"

definition mozcpp_lex_372 :: "bool \<Rightarrow> codepoint \<Rightarrow> lex_case" where
  "mozcpp_lex_372 eof la = (Some mozcpp_sym_preproc_arg,
      if la = CH_CR then ADVANCE 378 else
      if la = CH_SLASH then ADVANCE 342 else
      if la = CH_BACKSLASH then ADVANCE 372 else
      if la \<noteq> 0 then ADVANCE 377 else END_STATE)"

definition mozcpp_lex_373 :: "bool \<Rightarrow> codepoint \<Rightarrow> lex_case" where
  "mozcpp_lex_373 eof la = (Some mozcpp_sym_preproc_arg,
      if la = CH_CR then ADVANCE 376 else
      if la = CH_STAR then ADVANCE 367 else
      if la = CH_SLASH then ADVANCE 263 else
      if la = CH_BACKSLASH then ADVANCE 373 else
      if la \<noteq> 0 then ADVANCE 368 else END_STATE)"

definition mozcpp_lex_374 :: "bool \<Rightarrow> codepoint \<Rightarrow> lex_case" where
  "mozcpp_lex_374 eof la = (Some mozcpp_sym_preproc_arg,
      if la = CH_CR then ADVANCE 1159 else
      if la = CH_SLASH then ADVANCE 1157 else
      if la = CH_BACKSLASH then ADVANCE 1156 else
      if la \<noteq> 0 then ADVANCE 1158 else END_STATE)"

definition mozcpp_lex_375 :: "bool \<Rightarrow> codepoint \<Rightarrow> lex_case" where
  "mozcpp_lex_375 eof la = (Some mozcpp_sym_preproc_arg,
      if la = CH_STAR then ADVANCE 368 else
      if la = CH_SLASH then ADVANCE 1157 else
      if la = CH_BACKSLASH then ADVANCE 372 else
      if la \<noteq> 0 \<and> la \<noteq> CH_LF then ADVANCE 377 else END_STATE)"

definition mozcpp_lex_376 :: "bool \<Rightarrow> codepoint \<Rightarrow> lex_case" where
  "mozcpp_lex_376 eof la = (Some mozcpp_sym_preproc_arg,
      if la = CH_STAR then ADVANCE 367 else
      if la = CH_SLASH then ADVANCE 263 else
      if la = CH_BACKSLASH then ADVANCE 373 else
      if la \<noteq> 0 then ADVANCE 368 else END_STATE)"

definition mozcpp_lex_377 :: "bool \<Rightarrow> codepoint \<Rightarrow> lex_case" where
  "mozcpp_lex_377 eof la = (Some mozcpp_sym_preproc_arg,
      if la = CH_SLASH then ADVANCE 342 else
      if la = CH_BACKSLASH then ADVANCE 372 else
      if la \<noteq> 0 \<and> la \<noteq> CH_LF then ADVANCE 377 else END_STATE)"

definition mozcpp_lex_378 :: "bool \<Rightarrow> codepoint \<Rightarrow> lex_case" where
  "mozcpp_lex_378 eof la = (Some mozcpp_sym_preproc_arg,
      if la = CH_SLASH then ADVANCE 342 else
      if la = CH_BACKSLASH then ADVANCE 372 else
      if la \<noteq> 0 then ADVANCE 377 else END_STATE)"

definition mozcpp_lex_379 :: "bool \<Rightarrow> codepoint \<Rightarrow> lex_case" where
  "mozcpp_lex_379 eof la = (Some mozcpp_sym_preproc_directive,
      if la = CH_c then ADVANCE 405 else
      if (CH_0 \<le> la \<and> la \<le> CH_9) \<or> (CH_A \<le> la \<and> la \<le> CH_Z) \<or> la
        = CH_UNDERSCORE \<or> (CH_a \<le> la \<and> la \<le> CH_z) then ADVANCE 409 else
        END_STATE)"

definition mozcpp_lex_380 :: "bool \<Rightarrow> codepoint \<Rightarrow> lex_case" where
  "mozcpp_lex_380 eof la = (Some mozcpp_sym_preproc_directive,
      if la = CH_d then ADVANCE 403 else
      if (CH_0 \<le> la \<and> la \<le> CH_9) \<or> (CH_A \<le> la \<and> la \<le> CH_Z) \<or> la
        = CH_UNDERSCORE \<or> (CH_a \<le> la \<and> la \<le> CH_z) then ADVANCE 409 else
        END_STATE)"

definition mozcpp_lex_381 :: "bool \<Rightarrow> codepoint \<Rightarrow> lex_case" where
  "mozcpp_lex_381 eof la = (Some mozcpp_sym_preproc_directive,
      if la = CH_d then ADVANCE 387 else
      if (CH_0 \<le> la \<and> la \<le> CH_9) \<or> (CH_A \<le> la \<and> la \<le> CH_Z) \<or> la
        = CH_UNDERSCORE \<or> (CH_a \<le> la \<and> la \<le> CH_z) then ADVANCE 409 else
        END_STATE)"

definition mozcpp_lex_382 :: "bool \<Rightarrow> codepoint \<Rightarrow> lex_case" where
  "mozcpp_lex_382 eof la = (Some mozcpp_sym_preproc_directive,
      if la = CH_d then ADVANCE 389 else
      if (CH_0 \<le> la \<and> la \<le> CH_9) \<or> (CH_A \<le> la \<and> la \<le> CH_Z) \<or> la
        = CH_UNDERSCORE \<or> (CH_a \<le> la \<and> la \<le> CH_z) then ADVANCE 409 else
        END_STATE)"

definition mozcpp_lex_383 :: "bool \<Rightarrow> codepoint \<Rightarrow> lex_case" where
  "mozcpp_lex_383 eof la = (Some mozcpp_sym_preproc_directive,
      if la = CH_d then ADVANCE 391 else
      if (CH_0 \<le> la \<and> la \<le> CH_9) \<or> (CH_A \<le> la \<and> la \<le> CH_Z) \<or> la
        = CH_UNDERSCORE \<or> (CH_a \<le> la \<and> la \<le> CH_z) then ADVANCE 409 else
        END_STATE)"

definition mozcpp_lex_384 :: "bool \<Rightarrow> codepoint \<Rightarrow> lex_case" where
  "mozcpp_lex_384 eof la = (Some mozcpp_sym_preproc_directive,
      if la = CH_e then ADVANCE 394 else
      if (CH_0 \<le> la \<and> la \<le> CH_9) \<or> (CH_A \<le> la \<and> la \<le> CH_Z) \<or> la
        = CH_UNDERSCORE \<or> (CH_a \<le> la \<and> la \<le> CH_z) then ADVANCE 409 else
        END_STATE)"

definition mozcpp_lex_385 :: "bool \<Rightarrow> codepoint \<Rightarrow> lex_case" where
  "mozcpp_lex_385 eof la = (Some mozcpp_sym_preproc_directive,
      if la = CH_e then ADVANCE 360 else
      if (CH_0 \<le> la \<and> la \<le> CH_9) \<or> (CH_A \<le> la \<and> la \<le> CH_Z) \<or> la
        = CH_UNDERSCORE \<or> (CH_a \<le> la \<and> la \<le> CH_z) then ADVANCE 409 else
        END_STATE)"

definition mozcpp_lex_386 :: "bool \<Rightarrow> codepoint \<Rightarrow> lex_case" where
  "mozcpp_lex_386 eof la = (Some mozcpp_sym_preproc_directive,
      if la = CH_e then ADVANCE 348 else
      if (CH_0 \<le> la \<and> la \<le> CH_9) \<or> (CH_A \<le> la \<and> la \<le> CH_Z) \<or> la
        = CH_UNDERSCORE \<or> (CH_a \<le> la \<and> la \<le> CH_z) then ADVANCE 409 else
        END_STATE)"

definition mozcpp_lex_387 :: "bool \<Rightarrow> codepoint \<Rightarrow> lex_case" where
  "mozcpp_lex_387 eof la = (Some mozcpp_sym_preproc_directive,
      if la = CH_e then ADVANCE 346 else
      if (CH_0 \<le> la \<and> la \<le> CH_9) \<or> (CH_A \<le> la \<and> la \<le> CH_Z) \<or> la
        = CH_UNDERSCORE \<or> (CH_a \<le> la \<and> la \<le> CH_z) then ADVANCE 409 else
        END_STATE)"

definition mozcpp_lex_388 :: "bool \<Rightarrow> codepoint \<Rightarrow> lex_case" where
  "mozcpp_lex_388 eof la = (Some mozcpp_sym_preproc_directive,
      if la = CH_e then ADVANCE 397 else
      if (CH_0 \<le> la \<and> la \<le> CH_9) \<or> (CH_A \<le> la \<and> la \<le> CH_Z) \<or> la
        = CH_UNDERSCORE \<or> (CH_a \<le> la \<and> la \<le> CH_z) then ADVANCE 409 else
        END_STATE)"

definition mozcpp_lex_389 :: "bool \<Rightarrow> codepoint \<Rightarrow> lex_case" where
  "mozcpp_lex_389 eof la = (Some mozcpp_sym_preproc_directive,
      if la = CH_e then ADVANCE 398 else
      if (CH_0 \<le> la \<and> la \<le> CH_9) \<or> (CH_A \<le> la \<and> la \<le> CH_Z) \<or> la
        = CH_UNDERSCORE \<or> (CH_a \<le> la \<and> la \<le> CH_z) then ADVANCE 409 else
        END_STATE)"

definition mozcpp_lex_390 :: "bool \<Rightarrow> codepoint \<Rightarrow> lex_case" where
  "mozcpp_lex_390 eof la = (Some mozcpp_sym_preproc_directive,
      if la = CH_e then ADVANCE 399 else
      if (CH_0 \<le> la \<and> la \<le> CH_9) \<or> (CH_A \<le> la \<and> la \<le> CH_Z) \<or> la
        = CH_UNDERSCORE \<or> (CH_a \<le> la \<and> la \<le> CH_z) then ADVANCE 409 else
        END_STATE)"

definition mozcpp_lex_391 :: "bool \<Rightarrow> codepoint \<Rightarrow> lex_case" where
  "mozcpp_lex_391 eof la = (Some mozcpp_sym_preproc_directive,
      if la = CH_e then ADVANCE 400 else
      if (CH_0 \<le> la \<and> la \<le> CH_9) \<or> (CH_A \<le> la \<and> la \<le> CH_Z) \<or> la
        = CH_UNDERSCORE \<or> (CH_a \<le> la \<and> la \<le> CH_z) then ADVANCE 409 else
        END_STATE)"

definition mozcpp_lex_392 :: "bool \<Rightarrow> codepoint \<Rightarrow> lex_case" where
  "mozcpp_lex_392 eof la = (Some mozcpp_sym_preproc_directive,
      if la = CH_f then ADVANCE 353 else
      if la = CH_n then ADVANCE 379 else
      if (CH_0 \<le> la \<and> la \<le> CH_9) \<or> (CH_A \<le> la \<and> la \<le> CH_Z) \<or> la
        = CH_UNDERSCORE \<or> (CH_a \<le> la \<and> la \<le> CH_z) then ADVANCE 409 else
        END_STATE)"

definition mozcpp_lex_393 :: "bool \<Rightarrow> codepoint \<Rightarrow> lex_case" where
  "mozcpp_lex_393 eof la = (Some mozcpp_sym_preproc_directive,
      if la = CH_f then ADVANCE 353 else
      if (CH_0 \<le> la \<and> la \<le> CH_9) \<or> (CH_A \<le> la \<and> la \<le> CH_Z) \<or> la
        = CH_UNDERSCORE \<or> (CH_a \<le> la \<and> la \<le> CH_z) then ADVANCE 409 else
        END_STATE)"

definition mozcpp_lex_394 :: "bool \<Rightarrow> codepoint \<Rightarrow> lex_case" where
  "mozcpp_lex_394 eof la = (Some mozcpp_sym_preproc_directive,
      if la = CH_f then ADVANCE 401 else
      if (CH_0 \<le> la \<and> la \<le> CH_9) \<or> (CH_A \<le> la \<and> la \<le> CH_Z) \<or> la
        = CH_UNDERSCORE \<or> (CH_a \<le> la \<and> la \<le> CH_z) then ADVANCE 409 else
        END_STATE)"

definition mozcpp_lex_395 :: "bool \<Rightarrow> codepoint \<Rightarrow> lex_case" where
  "mozcpp_lex_395 eof la = (Some mozcpp_sym_preproc_directive,
      if la = CH_f then ADVANCE 362 else
      if (CH_0 \<le> la \<and> la \<le> CH_9) \<or> (CH_A \<le> la \<and> la \<le> CH_Z) \<or> la
        = CH_UNDERSCORE \<or> (CH_a \<le> la \<and> la \<le> CH_z) then ADVANCE 409 else
        END_STATE)"

definition mozcpp_lex_396 :: "bool \<Rightarrow> codepoint \<Rightarrow> lex_case" where
  "mozcpp_lex_396 eof la = (Some mozcpp_sym_preproc_directive,
      if la = CH_f then ADVANCE 356 else
      if (CH_0 \<le> la \<and> la \<le> CH_9) \<or> (CH_A \<le> la \<and> la \<le> CH_Z) \<or> la
        = CH_UNDERSCORE \<or> (CH_a \<le> la \<and> la \<le> CH_z) then ADVANCE 409 else
        END_STATE)"

definition mozcpp_lex_397 :: "bool \<Rightarrow> codepoint \<Rightarrow> lex_case" where
  "mozcpp_lex_397 eof la = (Some mozcpp_sym_preproc_directive,
      if la = CH_f then ADVANCE 357 else
      if (CH_0 \<le> la \<and> la \<le> CH_9) \<or> (CH_A \<le> la \<and> la \<le> CH_Z) \<or> la
        = CH_UNDERSCORE \<or> (CH_a \<le> la \<and> la \<le> CH_z) then ADVANCE 409 else
        END_STATE)"

definition mozcpp_lex_398 :: "bool \<Rightarrow> codepoint \<Rightarrow> lex_case" where
  "mozcpp_lex_398 eof la = (Some mozcpp_sym_preproc_directive,
      if la = CH_f then ADVANCE 358 else
      if (CH_0 \<le> la \<and> la \<le> CH_9) \<or> (CH_A \<le> la \<and> la \<le> CH_Z) \<or> la
        = CH_UNDERSCORE \<or> (CH_a \<le> la \<and> la \<le> CH_z) then ADVANCE 409 else
        END_STATE)"

definition mozcpp_lex_399 :: "bool \<Rightarrow> codepoint \<Rightarrow> lex_case" where
  "mozcpp_lex_399 eof la = (Some mozcpp_sym_preproc_directive,
      if la = CH_f then ADVANCE 364 else
      if (CH_0 \<le> la \<and> la \<le> CH_9) \<or> (CH_A \<le> la \<and> la \<le> CH_Z) \<or> la
        = CH_UNDERSCORE \<or> (CH_a \<le> la \<and> la \<le> CH_z) then ADVANCE 409 else
        END_STATE)"

definition mozcpp_lex_400 :: "bool \<Rightarrow> codepoint \<Rightarrow> lex_case" where
  "mozcpp_lex_400 eof la = (Some mozcpp_sym_preproc_directive,
      if la = CH_f then ADVANCE 366 else
      if (CH_0 \<le> la \<and> la \<le> CH_9) \<or> (CH_A \<le> la \<and> la \<le> CH_Z) \<or> la
        = CH_UNDERSCORE \<or> (CH_a \<le> la \<and> la \<le> CH_z) then ADVANCE 409 else
        END_STATE)"

definition mozcpp_lex_401 :: "bool \<Rightarrow> codepoint \<Rightarrow> lex_case" where
  "mozcpp_lex_401 eof la = (Some mozcpp_sym_preproc_directive,
      if la = CH_i then ADVANCE 407 else
      if (CH_0 \<le> la \<and> la \<le> CH_9) \<or> (CH_A \<le> la \<and> la \<le> CH_Z) \<or> la
        = CH_UNDERSCORE \<or> (CH_a \<le> la \<and> la \<le> CH_z) then ADVANCE 409 else
        END_STATE)"

definition mozcpp_lex_402 :: "bool \<Rightarrow> codepoint \<Rightarrow> lex_case" where
  "mozcpp_lex_402 eof la = (Some mozcpp_sym_preproc_directive,
      if la = CH_i then ADVANCE 395 else
      if la = CH_s then ADVANCE 385 else
      if (CH_0 \<le> la \<and> la \<le> CH_9) \<or> (CH_A \<le> la \<and> la \<le> CH_Z) \<or> la
        = CH_UNDERSCORE \<or> (CH_a \<le> la \<and> la \<le> CH_z) then ADVANCE 409 else
        END_STATE)"

definition mozcpp_lex_403 :: "bool \<Rightarrow> codepoint \<Rightarrow> lex_case" where
  "mozcpp_lex_403 eof la = (Some mozcpp_sym_preproc_directive,
      if la = CH_i then ADVANCE 396 else
      if (CH_0 \<le> la \<and> la \<le> CH_9) \<or> (CH_A \<le> la \<and> la \<le> CH_Z) \<or> la
        = CH_UNDERSCORE \<or> (CH_a \<le> la \<and> la \<le> CH_z) then ADVANCE 409 else
        END_STATE)"

definition mozcpp_lex_404 :: "bool \<Rightarrow> codepoint \<Rightarrow> lex_case" where
  "mozcpp_lex_404 eof la = (Some mozcpp_sym_preproc_directive,
      if la = CH_l then ADVANCE 402 else
      if la = CH_n then ADVANCE 380 else
      if (CH_0 \<le> la \<and> la \<le> CH_9) \<or> (CH_A \<le> la \<and> la \<le> CH_Z) \<or> la
        = CH_UNDERSCORE \<or> (CH_a \<le> la \<and> la \<le> CH_z) then ADVANCE 409 else
        END_STATE)"

definition mozcpp_lex_405 :: "bool \<Rightarrow> codepoint \<Rightarrow> lex_case" where
  "mozcpp_lex_405 eof la = (Some mozcpp_sym_preproc_directive,
      if la = CH_l then ADVANCE 408 else
      if (CH_0 \<le> la \<and> la \<le> CH_9) \<or> (CH_A \<le> la \<and> la \<le> CH_Z) \<or> la
        = CH_UNDERSCORE \<or> (CH_a \<le> la \<and> la \<le> CH_z) then ADVANCE 409 else
        END_STATE)"

definition mozcpp_lex_406 :: "bool \<Rightarrow> codepoint \<Rightarrow> lex_case" where
  "mozcpp_lex_406 eof la = (Some mozcpp_sym_preproc_directive,
      if la = CH_n then ADVANCE 380 else
      if (CH_0 \<le> la \<and> la \<le> CH_9) \<or> (CH_A \<le> la \<and> la \<le> CH_Z) \<or> la
        = CH_UNDERSCORE \<or> (CH_a \<le> la \<and> la \<le> CH_z) then ADVANCE 409 else
        END_STATE)"

definition mozcpp_lex_407 :: "bool \<Rightarrow> codepoint \<Rightarrow> lex_case" where
  "mozcpp_lex_407 eof la = (Some mozcpp_sym_preproc_directive,
      if la = CH_n then ADVANCE 386 else
      if (CH_0 \<le> la \<and> la \<le> CH_9) \<or> (CH_A \<le> la \<and> la \<le> CH_Z) \<or> la
        = CH_UNDERSCORE \<or> (CH_a \<le> la \<and> la \<le> CH_z) then ADVANCE 409 else
        END_STATE)"

definition mozcpp_lex_408 :: "bool \<Rightarrow> codepoint \<Rightarrow> lex_case" where
  "mozcpp_lex_408 eof la = (Some mozcpp_sym_preproc_directive,
      if la = CH_u then ADVANCE 381 else
      if (CH_0 \<le> la \<and> la \<le> CH_9) \<or> (CH_A \<le> la \<and> la \<le> CH_Z) \<or> la
        = CH_UNDERSCORE \<or> (CH_a \<le> la \<and> la \<le> CH_z) then ADVANCE 409 else
        END_STATE)"

definition mozcpp_lex_409 :: "bool \<Rightarrow> codepoint \<Rightarrow> lex_case" where
  "mozcpp_lex_409 eof la = (Some mozcpp_sym_preproc_directive,
      if (CH_0 \<le> la \<and> la \<le> CH_9) \<or> (CH_A \<le> la \<and> la \<le> CH_Z) \<or> la
        = CH_UNDERSCORE \<or> (CH_a \<le> la \<and> la \<le> CH_z) then ADVANCE 409 else
        END_STATE)"

definition mozcpp_lex_410 :: "bool \<Rightarrow> codepoint \<Rightarrow> lex_case" where
  "mozcpp_lex_410 eof la = (Some mozcpp_anon_sym_LPAREN2, END_STATE)"

definition mozcpp_lex_411 :: "bool \<Rightarrow> codepoint \<Rightarrow> lex_case" where
  "mozcpp_lex_411 eof la = (Some mozcpp_anon_sym_BANG, END_STATE)"

definition mozcpp_lex_412 :: "bool \<Rightarrow> codepoint \<Rightarrow> lex_case" where
  "mozcpp_lex_412 eof la = (Some mozcpp_anon_sym_BANG,
      if la = CH_EQUALS then ADVANCE 448 else END_STATE)"

definition mozcpp_lex_413 :: "bool \<Rightarrow> codepoint \<Rightarrow> lex_case" where
  "mozcpp_lex_413 eof la = (Some mozcpp_anon_sym_TILDE, END_STATE)"

definition mozcpp_lex_414 :: "bool \<Rightarrow> codepoint \<Rightarrow> lex_case" where
  "mozcpp_lex_414 eof la = (Some mozcpp_anon_sym_DASH, END_STATE)"

definition mozcpp_lex_415 :: "bool \<Rightarrow> codepoint \<Rightarrow> lex_case" where
  "mozcpp_lex_415 eof la = (Some mozcpp_anon_sym_DASH,
      if la = CH_MINUS then ADVANCE 505 else
      if la = CH_DOT then ADVANCE 319 else
      if la = CH_0 then ADVANCE 516 else
      if la = CH_EQUALS then ADVANCE 498 else
      if la = CH_GT then ADVANCE 513 else
      if CH_1 \<le> la \<and> la \<le> CH_9 then ADVANCE 519 else END_STATE)"

definition mozcpp_lex_416 :: "bool \<Rightarrow> codepoint \<Rightarrow> lex_case" where
  "mozcpp_lex_416 eof la = (Some mozcpp_anon_sym_DASH,
      if la = CH_MINUS then ADVANCE 505 else
      if la = CH_DOT then ADVANCE 319 else
      if la = CH_0 then ADVANCE 516 else
      if la = CH_EQUALS then ADVANCE 498 else
      if la = CH_GT then ADVANCE 512 else
      if CH_1 \<le> la \<and> la \<le> CH_9 then ADVANCE 519 else END_STATE)"

definition mozcpp_lex_417 :: "bool \<Rightarrow> codepoint \<Rightarrow> lex_case" where
  "mozcpp_lex_417 eof la = (Some mozcpp_anon_sym_DASH,
      if la = CH_MINUS then ADVANCE 505 else
      if la = CH_DOT then ADVANCE 319 else
      if la = CH_0 then ADVANCE 516 else
      if la = CH_GT then ADVANCE 512 else
      if CH_1 \<le> la \<and> la \<le> CH_9 then ADVANCE 519 else END_STATE)"

definition mozcpp_lex_418 :: "bool \<Rightarrow> codepoint \<Rightarrow> lex_case" where
  "mozcpp_lex_418 eof la = (Some mozcpp_anon_sym_DASH,
      if la = CH_MINUS then ADVANCE 505 else
      if la = CH_DOT then ADVANCE 319 else
      if la = CH_0 then ADVANCE 516 else
      if CH_1 \<le> la \<and> la \<le> CH_9 then ADVANCE 519 else END_STATE)"

definition mozcpp_lex_419 :: "bool \<Rightarrow> codepoint \<Rightarrow> lex_case" where
  "mozcpp_lex_419 eof la = (Some mozcpp_anon_sym_DASH,
      if la = CH_MINUS then ADVANCE 505 else
      if la = CH_EQUALS then ADVANCE 498 else
      if la = CH_GT then ADVANCE 513 else END_STATE)"

definition mozcpp_lex_420 :: "bool \<Rightarrow> codepoint \<Rightarrow> lex_case" where
  "mozcpp_lex_420 eof la = (Some mozcpp_anon_sym_DASH,
      if la = CH_MINUS then ADVANCE 505 else
      if la = CH_EQUALS then ADVANCE 498 else
      if la = CH_GT then ADVANCE 512 else END_STATE)"

definition mozcpp_lex_421 :: "bool \<Rightarrow> codepoint \<Rightarrow> lex_case" where
  "mozcpp_lex_421 eof la = (Some mozcpp_anon_sym_DASH,
      if la = CH_MINUS then ADVANCE 505 else
      if la = CH_GT then ADVANCE 512 else END_STATE)"

definition mozcpp_lex_422 :: "bool \<Rightarrow> codepoint \<Rightarrow> lex_case" where
  "mozcpp_lex_422 eof la = (Some mozcpp_anon_sym_DASH,
      if la = CH_DOT then ADVANCE 319 else
      if la = CH_0 then ADVANCE 516 else
      if CH_1 \<le> la \<and> la \<le> CH_9 then ADVANCE 519 else END_STATE)"

definition mozcpp_lex_423 :: "bool \<Rightarrow> codepoint \<Rightarrow> lex_case" where
  "mozcpp_lex_423 eof la = (Some mozcpp_anon_sym_DASH,
      if la = CH_EQUALS then ADVANCE 498 else
      if la = CH_GT then ADVANCE 260 else END_STATE)"

definition mozcpp_lex_424 :: "bool \<Rightarrow> codepoint \<Rightarrow> lex_case" where
  "mozcpp_lex_424 eof la = (Some mozcpp_anon_sym_PLUS, END_STATE)"

definition mozcpp_lex_425 :: "bool \<Rightarrow> codepoint \<Rightarrow> lex_case" where
  "mozcpp_lex_425 eof la = (Some mozcpp_anon_sym_PLUS,
      if la = CH_PLUS then ADVANCE 506 else END_STATE)"

definition mozcpp_lex_426 :: "bool \<Rightarrow> codepoint \<Rightarrow> lex_case" where
  "mozcpp_lex_426 eof la = (Some mozcpp_anon_sym_PLUS,
      if la = CH_PLUS then ADVANCE 506 else
      if la = CH_DOT then ADVANCE 319 else
      if la = CH_0 then ADVANCE 516 else
      if la = CH_EQUALS then ADVANCE 497 else
      if CH_1 \<le> la \<and> la \<le> CH_9 then ADVANCE 519 else END_STATE)"

definition mozcpp_lex_427 :: "bool \<Rightarrow> codepoint \<Rightarrow> lex_case" where
  "mozcpp_lex_427 eof la = (Some mozcpp_anon_sym_PLUS,
      if la = CH_PLUS then ADVANCE 506 else
      if la = CH_DOT then ADVANCE 319 else
      if la = CH_0 then ADVANCE 516 else
      if CH_1 \<le> la \<and> la \<le> CH_9 then ADVANCE 519 else END_STATE)"

definition mozcpp_lex_428 :: "bool \<Rightarrow> codepoint \<Rightarrow> lex_case" where
  "mozcpp_lex_428 eof la = (Some mozcpp_anon_sym_PLUS,
      if la = CH_PLUS then ADVANCE 506 else
      if la = CH_EQUALS then ADVANCE 497 else END_STATE)"

definition mozcpp_lex_429 :: "bool \<Rightarrow> codepoint \<Rightarrow> lex_case" where
  "mozcpp_lex_429 eof la = (Some mozcpp_anon_sym_PLUS,
      if la = CH_DOT then ADVANCE 319 else
      if la = CH_0 then ADVANCE 516 else
      if CH_1 \<le> la \<and> la \<le> CH_9 then ADVANCE 519 else END_STATE)"

definition mozcpp_lex_430 :: "bool \<Rightarrow> codepoint \<Rightarrow> lex_case" where
  "mozcpp_lex_430 eof la = (Some mozcpp_anon_sym_PLUS,
      if la = CH_EQUALS then ADVANCE 497 else END_STATE)"

definition mozcpp_lex_431 :: "bool \<Rightarrow> codepoint \<Rightarrow> lex_case" where
  "mozcpp_lex_431 eof la = (Some mozcpp_anon_sym_STAR, END_STATE)"

definition mozcpp_lex_432 :: "bool \<Rightarrow> codepoint \<Rightarrow> lex_case" where
  "mozcpp_lex_432 eof la = (Some mozcpp_anon_sym_STAR,
      if la = CH_EQUALS then ADVANCE 494 else END_STATE)"

definition mozcpp_lex_433 :: "bool \<Rightarrow> codepoint \<Rightarrow> lex_case" where
  "mozcpp_lex_433 eof la = (Some mozcpp_anon_sym_SLASH,
      if la = CH_STAR then ADVANCE 262 else
      if la = CH_SLASH then ADVANCE 1160 else END_STATE)"

definition mozcpp_lex_434 :: "bool \<Rightarrow> codepoint \<Rightarrow> lex_case" where
  "mozcpp_lex_434 eof la = (Some mozcpp_anon_sym_SLASH,
      if la = CH_STAR then ADVANCE 262 else
      if la = CH_SLASH then ADVANCE 1160 else
      if la = CH_EQUALS then ADVANCE 495 else END_STATE)"

definition mozcpp_lex_435 :: "bool \<Rightarrow> codepoint \<Rightarrow> lex_case" where
  "mozcpp_lex_435 eof la = (Some mozcpp_anon_sym_PERCENT, END_STATE)"

definition mozcpp_lex_436 :: "bool \<Rightarrow> codepoint \<Rightarrow> lex_case" where
  "mozcpp_lex_436 eof la = (Some mozcpp_anon_sym_PERCENT,
      if la = CH_EQUALS then ADVANCE 496 else END_STATE)"

definition mozcpp_lex_437 :: "bool \<Rightarrow> codepoint \<Rightarrow> lex_case" where
  "mozcpp_lex_437 eof la = (Some mozcpp_anon_sym_PIPE_PIPE, END_STATE)"

definition mozcpp_lex_438 :: "bool \<Rightarrow> codepoint \<Rightarrow> lex_case" where
  "mozcpp_lex_438 eof la = (Some mozcpp_anon_sym_AMP_AMP, END_STATE)"

definition mozcpp_lex_439 :: "bool \<Rightarrow> codepoint \<Rightarrow> lex_case" where
  "mozcpp_lex_439 eof la = (Some mozcpp_anon_sym_PIPE, END_STATE)"

definition mozcpp_lex_440 :: "bool \<Rightarrow> codepoint \<Rightarrow> lex_case" where
  "mozcpp_lex_440 eof la = (Some mozcpp_anon_sym_PIPE,
      if la = CH_EQUALS then ADVANCE 503 else
      if la = CH_BAR then ADVANCE 437 else END_STATE)"

definition mozcpp_lex_441 :: "bool \<Rightarrow> codepoint \<Rightarrow> lex_case" where
  "mozcpp_lex_441 eof la = (Some mozcpp_anon_sym_PIPE,
      if la = CH_BAR then ADVANCE 437 else END_STATE)"

definition mozcpp_lex_442 :: "bool \<Rightarrow> codepoint \<Rightarrow> lex_case" where
  "mozcpp_lex_442 eof la = (Some mozcpp_anon_sym_CARET, END_STATE)"

definition mozcpp_lex_443 :: "bool \<Rightarrow> codepoint \<Rightarrow> lex_case" where
  "mozcpp_lex_443 eof la = (Some mozcpp_anon_sym_CARET,
      if la = CH_EQUALS then ADVANCE 502 else END_STATE)"

definition mozcpp_lex_444 :: "bool \<Rightarrow> codepoint \<Rightarrow> lex_case" where
  "mozcpp_lex_444 eof la = (Some mozcpp_anon_sym_AMP, END_STATE)"

definition mozcpp_lex_445 :: "bool \<Rightarrow> codepoint \<Rightarrow> lex_case" where
  "mozcpp_lex_445 eof la = (Some mozcpp_anon_sym_AMP,
      if la = CH_AMP then ADVANCE 438 else END_STATE)"

definition mozcpp_lex_446 :: "bool \<Rightarrow> codepoint \<Rightarrow> lex_case" where
  "mozcpp_lex_446 eof la = (Some mozcpp_anon_sym_AMP,
      if la = CH_AMP then ADVANCE 438 else
      if la = CH_EQUALS then ADVANCE 501 else END_STATE)"

definition mozcpp_lex_447 :: "bool \<Rightarrow> codepoint \<Rightarrow> lex_case" where
  "mozcpp_lex_447 eof la = (Some mozcpp_anon_sym_EQ_EQ, END_STATE)"

definition mozcpp_lex_448 :: "bool \<Rightarrow> codepoint \<Rightarrow> lex_case" where
  "mozcpp_lex_448 eof la = (Some mozcpp_anon_sym_BANG_EQ, END_STATE)"

definition mozcpp_lex_449 :: "bool \<Rightarrow> codepoint \<Rightarrow> lex_case" where
  "mozcpp_lex_449 eof la = (Some mozcpp_anon_sym_GT, END_STATE)"

definition mozcpp_lex_450 :: "bool \<Rightarrow> codepoint \<Rightarrow> lex_case" where
  "mozcpp_lex_450 eof la = (Some mozcpp_anon_sym_GT,
      if la = CH_EQUALS then ADVANCE 452 else
      if la = CH_GT then ADVANCE 462 else END_STATE)"

definition mozcpp_lex_451 :: "bool \<Rightarrow> codepoint \<Rightarrow> lex_case" where
  "mozcpp_lex_451 eof la = (Some mozcpp_anon_sym_GT,
      if la = CH_EQUALS then ADVANCE 452 else
      if la = CH_GT then ADVANCE 463 else END_STATE)"

definition mozcpp_lex_452 :: "bool \<Rightarrow> codepoint \<Rightarrow> lex_case" where
  "mozcpp_lex_452 eof la = (Some mozcpp_anon_sym_GT_EQ, END_STATE)"

definition mozcpp_lex_453 :: "bool \<Rightarrow> codepoint \<Rightarrow> lex_case" where
  "mozcpp_lex_453 eof la = (Some mozcpp_anon_sym_LT_EQ, END_STATE)"

definition mozcpp_lex_454 :: "bool \<Rightarrow> codepoint \<Rightarrow> lex_case" where
  "mozcpp_lex_454 eof la = (Some mozcpp_anon_sym_LT_EQ,
      if la = CH_GT then ADVANCE 504 else END_STATE)"

definition mozcpp_lex_455 :: "bool \<Rightarrow> codepoint \<Rightarrow> lex_case" where
  "mozcpp_lex_455 eof la = (Some mozcpp_anon_sym_LT, END_STATE)"

definition mozcpp_lex_456 :: "bool \<Rightarrow> codepoint \<Rightarrow> lex_case" where
  "mozcpp_lex_456 eof la = (Some mozcpp_anon_sym_LT,
      if la = CH_LT then ADVANCE 461 else
      if la = CH_EQUALS then ADVANCE 454 else END_STATE)"

definition mozcpp_lex_457 :: "bool \<Rightarrow> codepoint \<Rightarrow> lex_case" where
  "mozcpp_lex_457 eof la = (Some mozcpp_anon_sym_LT,
      if la = CH_LT then ADVANCE 461 else
      if la = CH_EQUALS then ADVANCE 453 else END_STATE)"

definition mozcpp_lex_458 :: "bool \<Rightarrow> codepoint \<Rightarrow> lex_case" where
  "mozcpp_lex_458 eof la = (Some mozcpp_anon_sym_LT,
      if la = CH_LT then ADVANCE 460 else
      if la = CH_EQUALS then ADVANCE 454 else END_STATE)"

definition mozcpp_lex_459 :: "bool \<Rightarrow> codepoint \<Rightarrow> lex_case" where
  "mozcpp_lex_459 eof la = (Some mozcpp_anon_sym_LT,
      if la = CH_LT then ADVANCE 460 else
      if la = CH_EQUALS then ADVANCE 453 else END_STATE)"

definition mozcpp_lex_460 :: "bool \<Rightarrow> codepoint \<Rightarrow> lex_case" where
  "mozcpp_lex_460 eof la = (Some mozcpp_anon_sym_LT_LT, END_STATE)"

definition mozcpp_lex_461 :: "bool \<Rightarrow> codepoint \<Rightarrow> lex_case" where
  "mozcpp_lex_461 eof la = (Some mozcpp_anon_sym_LT_LT,
      if la = CH_EQUALS then ADVANCE 499 else END_STATE)"

definition mozcpp_lex_462 :: "bool \<Rightarrow> codepoint \<Rightarrow> lex_case" where
  "mozcpp_lex_462 eof la = (Some mozcpp_anon_sym_GT_GT, END_STATE)"

definition mozcpp_lex_463 :: "bool \<Rightarrow> codepoint \<Rightarrow> lex_case" where
  "mozcpp_lex_463 eof la = (Some mozcpp_anon_sym_GT_GT,
      if la = CH_EQUALS then ADVANCE 500 else END_STATE)"

definition mozcpp_lex_464 :: "bool \<Rightarrow> codepoint \<Rightarrow> lex_case" where
  "mozcpp_lex_464 eof la = (Some mozcpp_anon_sym_SEMI, END_STATE)"

definition mozcpp_lex_465 :: "bool \<Rightarrow> codepoint \<Rightarrow> lex_case" where
  "mozcpp_lex_465 eof la = (Some mozcpp_anon_sym_COLON_COLON, END_STATE)"

definition mozcpp_lex_466 :: "bool \<Rightarrow> codepoint \<Rightarrow> lex_case" where
  "mozcpp_lex_466 eof la = (Some mozcpp_anon_sym_LBRACK_LBRACK, END_STATE)"

definition mozcpp_lex_467 :: "bool \<Rightarrow> codepoint \<Rightarrow> lex_case" where
  "mozcpp_lex_467 eof la = (Some mozcpp_anon_sym_RBRACK_RBRACK, END_STATE)"

definition mozcpp_lex_468 :: "bool \<Rightarrow> codepoint \<Rightarrow> lex_case" where
  "mozcpp_lex_468 eof la = (Some mozcpp_anon_sym_LBRACE, END_STATE)"

definition mozcpp_lex_469 :: "bool \<Rightarrow> codepoint \<Rightarrow> lex_case" where
  "mozcpp_lex_469 eof la = (Some mozcpp_anon_sym_RBRACE, END_STATE)"

definition mozcpp_lex_470 :: "bool \<Rightarrow> codepoint \<Rightarrow> lex_case" where
  "mozcpp_lex_470 eof la = (Some mozcpp_anon_sym_LBRACK, END_STATE)"

definition mozcpp_lex_471 :: "bool \<Rightarrow> codepoint \<Rightarrow> lex_case" where
  "mozcpp_lex_471 eof la = (Some mozcpp_anon_sym_LBRACK,
      if la = CH_LBRACKET then ADVANCE 466 else END_STATE)"

definition mozcpp_lex_472 :: "bool \<Rightarrow> codepoint \<Rightarrow> lex_case" where
  "mozcpp_lex_472 eof la = (Some mozcpp_anon_sym_LBRACK,
      if la = CH_LBRACKET then ADVANCE 466 else
      if la = CH_RBRACKET then ADVANCE 1171 else END_STATE)"

definition mozcpp_lex_473 :: "bool \<Rightarrow> codepoint \<Rightarrow> lex_case" where
  "mozcpp_lex_473 eof la = (Some mozcpp_anon_sym_LBRACK,
      if la = CH_RBRACKET then ADVANCE 1171 else END_STATE)"

definition mozcpp_lex_474 :: "bool \<Rightarrow> codepoint \<Rightarrow> lex_case" where
  "mozcpp_lex_474 eof la = (Some mozcpp_anon_sym_RBRACK, END_STATE)"

definition mozcpp_lex_475 :: "bool \<Rightarrow> codepoint \<Rightarrow> lex_case" where
  "mozcpp_lex_475 eof la = (Some mozcpp_anon_sym_EQ, END_STATE)"

definition mozcpp_lex_476 :: "bool \<Rightarrow> codepoint \<Rightarrow> lex_case" where
  "mozcpp_lex_476 eof la = (Some mozcpp_anon_sym_EQ,
      if la = CH_EQUALS then ADVANCE 447 else END_STATE)"

definition mozcpp_lex_477 :: "bool \<Rightarrow> codepoint \<Rightarrow> lex_case" where
  "mozcpp_lex_477 eof la = (Some mozcpp_sym_primitive_type,
      if la = CH_LF then ADVANCE 1183 else
      if la = CH_1 then ADVANCE 567 else
      if la = CH_3 then ADVANCE 564 else
      if la = CH_6 then ADVANCE 566 else
      if la = CH_8 then ADVANCE 482 else
      if la = CH_BACKSLASH then ADVANCE 286 else
      if la = CH_UNDERSCORE then ADVANCE 723 else
      if (CH_TAB \<le> la \<and> la \<le> CH_CR) \<or> la = CH_SPACE then ADVANCE 5 else
      if (CH_0 \<le> la \<and> la \<le> CH_9) \<or> (CH_A \<le> la \<and> la \<le> CH_Z) then
        ADVANCE 792 else
      if mozcpp_in_identifier la then ADVANCE 1152 else END_STATE)"

definition mozcpp_lex_478 :: "bool \<Rightarrow> codepoint \<Rightarrow> lex_case" where
  "mozcpp_lex_478 eof la = (Some mozcpp_sym_primitive_type,
      if la = CH_LF then ADVANCE 1183 else
      if la = CH_3 then ADVANCE 564 else
      if la = CH_6 then ADVANCE 566 else
      if la = CH_L then ADVANCE 718 else
      if la = CH_BACKSLASH then ADVANCE 286 else
      if la = CH_UNDERSCORE then ADVANCE 723 else
      if (CH_TAB \<le> la \<and> la \<le> CH_CR) \<or> la = CH_SPACE then ADVANCE 5 else
      if (CH_0 \<le> la \<and> la \<le> CH_9) \<or> (CH_A \<le> la \<and> la \<le> CH_Z) then
        ADVANCE 792 else
      if mozcpp_in_identifier la then ADVANCE 1152 else END_STATE)"

definition mozcpp_lex_479 :: "bool \<Rightarrow> codepoint \<Rightarrow> lex_case" where
  "mozcpp_lex_479 eof la = (Some mozcpp_sym_primitive_type,
      if la = CH_LF then ADVANCE 1183 else
      if la = CH_3 then ADVANCE 564 else
      if la = CH_6 then ADVANCE 566 else
      if la = CH_L then ADVANCE 718 else
      if la = CH_BACKSLASH then ADVANCE 286 else
      if (CH_TAB \<le> la \<and> la \<le> CH_CR) \<or> la = CH_SPACE then ADVANCE 5 else
      if (CH_0 \<le> la \<and> la \<le> CH_9) \<or> (CH_A \<le> la \<and> la \<le> CH_Z) \<or> la
        = CH_UNDERSCORE then ADVANCE 792 else
      if mozcpp_in_identifier la then ADVANCE 1152 else END_STATE)"

definition mozcpp_lex_480 :: "bool \<Rightarrow> codepoint \<Rightarrow> lex_case" where
  "mozcpp_lex_480 eof la = (Some mozcpp_sym_primitive_type,
      if la = CH_LF then ADVANCE 1183 else
      if la = CH_E then ADVANCE 577 else
      if la = CH_BACKSLASH then ADVANCE 286 else
      if (CH_TAB \<le> la \<and> la \<le> CH_CR) \<or> la = CH_SPACE then ADVANCE 5 else
      if (CH_0 \<le> la \<and> la \<le> CH_9) \<or> (CH_A \<le> la \<and> la \<le> CH_Z) \<or> la
        = CH_UNDERSCORE then ADVANCE 792 else
      if mozcpp_in_identifier la then ADVANCE 1152 else END_STATE)"

definition mozcpp_lex_481 :: "bool \<Rightarrow> codepoint \<Rightarrow> lex_case" where
  "mozcpp_lex_481 eof la = (Some mozcpp_sym_primitive_type,
      if la = CH_LF then ADVANCE 1183 else
      if la = CH_L then ADVANCE 660 else
      if la = CH_BACKSLASH then ADVANCE 286 else
      if (CH_TAB \<le> la \<and> la \<le> CH_CR) \<or> la = CH_SPACE then ADVANCE 5 else
      if (CH_0 \<le> la \<and> la \<le> CH_9) \<or> (CH_A \<le> la \<and> la \<le> CH_Z) \<or> la
        = CH_UNDERSCORE then ADVANCE 792 else
      if mozcpp_in_identifier la then ADVANCE 1152 else END_STATE)"

definition mozcpp_lex_482 :: "bool \<Rightarrow> codepoint \<Rightarrow> lex_case" where
  "mozcpp_lex_482 eof la = (Some mozcpp_sym_primitive_type,
      if la = CH_LF then ADVANCE 1183 else
      if la = CH_BACKSLASH then ADVANCE 286 else
      if (CH_TAB \<le> la \<and> la \<le> CH_CR) \<or> la = CH_SPACE then ADVANCE 5 else
      if (CH_0 \<le> la \<and> la \<le> CH_9) \<or> (CH_A \<le> la \<and> la \<le> CH_Z) \<or> la
        = CH_UNDERSCORE then ADVANCE 792 else
      if mozcpp_in_identifier la then ADVANCE 1152 else END_STATE)"

definition mozcpp_lex_483 :: "bool \<Rightarrow> codepoint \<Rightarrow> lex_case" where
  "mozcpp_lex_483 eof la = (Some mozcpp_sym_primitive_type,
      if la = CH_1 then ADVANCE 828 else
      if la = CH_3 then ADVANCE 823 else
      if la = CH_6 then ADVANCE 826 else
      if la = CH_8 then ADVANCE 490 else
      if la = CH_BACKSLASH then ADVANCE 286 else
      if la = CH_UNDERSCORE then ADVANCE 1009 else
      if mozcpp_in_identifier la then ADVANCE 1152 else END_STATE)"

definition mozcpp_lex_484 :: "bool \<Rightarrow> codepoint \<Rightarrow> lex_case" where
  "mozcpp_lex_484 eof la = (Some mozcpp_sym_primitive_type,
      case ADVANCE_MAP [(CH_1, 829), (CH_3, 824), (CH_6, 827), (CH_8, 1078), (CH_BACKSLASH, 286),
        (CH_UNDERSCORE, 1105), (CH_m, 1093), (CH_p, 1144)] la of Some st \<Rightarrow> ADVANCE st
        | None \<Rightarrow> (
      if mozcpp_in_identifier la then ADVANCE 1152 else END_STATE))"

definition mozcpp_lex_485 :: "bool \<Rightarrow> codepoint \<Rightarrow> lex_case" where
  "mozcpp_lex_485 eof la = (Some mozcpp_sym_primitive_type,
      if la = CH_1 then ADVANCE 829 else
      if la = CH_3 then ADVANCE 824 else
      if la = CH_6 then ADVANCE 827 else
      if la = CH_8 then ADVANCE 1078 else
      if la = CH_BACKSLASH then ADVANCE 286 else
      if la = CH_p then ADVANCE 1144 else
      if mozcpp_in_identifier la then ADVANCE 1152 else END_STATE)"

definition mozcpp_lex_486 :: "bool \<Rightarrow> codepoint \<Rightarrow> lex_case" where
  "mozcpp_lex_486 eof la = (Some mozcpp_sym_primitive_type,
      if la = CH_3 then ADVANCE 823 else
      if la = CH_6 then ADVANCE 826 else
      if la = CH_L then ADVANCE 999 else
      if la = CH_BACKSLASH then ADVANCE 286 else
      if la = CH_UNDERSCORE then ADVANCE 1009 else
      if mozcpp_in_identifier la then ADVANCE 1152 else END_STATE)"

definition mozcpp_lex_487 :: "bool \<Rightarrow> codepoint \<Rightarrow> lex_case" where
  "mozcpp_lex_487 eof la = (Some mozcpp_sym_primitive_type,
      if la = CH_3 then ADVANCE 823 else
      if la = CH_6 then ADVANCE 826 else
      if la = CH_L then ADVANCE 999 else
      if la = CH_BACKSLASH then ADVANCE 286 else
      if mozcpp_in_identifier la then ADVANCE 1152 else END_STATE)"

definition mozcpp_lex_488 :: "bool \<Rightarrow> codepoint \<Rightarrow> lex_case" where
  "mozcpp_lex_488 eof la = (Some mozcpp_sym_primitive_type,
      if la = CH_E then ADVANCE 842 else
      if la = CH_BACKSLASH then ADVANCE 286 else
      if mozcpp_in_identifier la then ADVANCE 1152 else END_STATE)"

definition mozcpp_lex_489 :: "bool \<Rightarrow> codepoint \<Rightarrow> lex_case" where
  "mozcpp_lex_489 eof la = (Some mozcpp_sym_primitive_type,
      if la = CH_L then ADVANCE 941 else
      if la = CH_BACKSLASH then ADVANCE 286 else
      if mozcpp_in_identifier la then ADVANCE 1152 else END_STATE)"

definition mozcpp_lex_490 :: "bool \<Rightarrow> codepoint \<Rightarrow> lex_case" where
  "mozcpp_lex_490 eof la = (Some mozcpp_sym_primitive_type,
      if la = CH_BACKSLASH then ADVANCE 286 else
      if mozcpp_in_identifier la then ADVANCE 1152 else END_STATE)"

definition mozcpp_lex_491 :: "bool \<Rightarrow> codepoint \<Rightarrow> lex_case" where
  "mozcpp_lex_491 eof la = (Some mozcpp_anon_sym_COLON, END_STATE)"

definition mozcpp_lex_492 :: "bool \<Rightarrow> codepoint \<Rightarrow> lex_case" where
  "mozcpp_lex_492 eof la = (Some mozcpp_anon_sym_COLON,
      if la = CH_COLON then ADVANCE 465 else END_STATE)"

definition mozcpp_lex_493 :: "bool \<Rightarrow> codepoint \<Rightarrow> lex_case" where
  "mozcpp_lex_493 eof la = (Some mozcpp_anon_sym_QMARK, END_STATE)"

definition mozcpp_lex_494 :: "bool \<Rightarrow> codepoint \<Rightarrow> lex_case" where
  "mozcpp_lex_494 eof la = (Some mozcpp_anon_sym_STAR_EQ, END_STATE)"

definition mozcpp_lex_495 :: "bool \<Rightarrow> codepoint \<Rightarrow> lex_case" where
  "mozcpp_lex_495 eof la = (Some mozcpp_anon_sym_SLASH_EQ, END_STATE)"

definition mozcpp_lex_496 :: "bool \<Rightarrow> codepoint \<Rightarrow> lex_case" where
  "mozcpp_lex_496 eof la = (Some mozcpp_anon_sym_PERCENT_EQ, END_STATE)"

definition mozcpp_lex_497 :: "bool \<Rightarrow> codepoint \<Rightarrow> lex_case" where
  "mozcpp_lex_497 eof la = (Some mozcpp_anon_sym_PLUS_EQ, END_STATE)"

definition mozcpp_lex_498 :: "bool \<Rightarrow> codepoint \<Rightarrow> lex_case" where
  "mozcpp_lex_498 eof la = (Some mozcpp_anon_sym_DASH_EQ, END_STATE)"

definition mozcpp_lex_499 :: "bool \<Rightarrow> codepoint \<Rightarrow> lex_case" where
  "mozcpp_lex_499 eof la = (Some mozcpp_anon_sym_LT_LT_EQ, END_STATE)"

definition mozcpp_lex_500 :: "bool \<Rightarrow> codepoint \<Rightarrow> lex_case" where
  "mozcpp_lex_500 eof la = (Some mozcpp_anon_sym_GT_GT_EQ, END_STATE)"

definition mozcpp_lex_501 :: "bool \<Rightarrow> codepoint \<Rightarrow> lex_case" where
  "mozcpp_lex_501 eof la = (Some mozcpp_anon_sym_AMP_EQ, END_STATE)"

definition mozcpp_lex_502 :: "bool \<Rightarrow> codepoint \<Rightarrow> lex_case" where
  "mozcpp_lex_502 eof la = (Some mozcpp_anon_sym_CARET_EQ, END_STATE)"

definition mozcpp_lex_503 :: "bool \<Rightarrow> codepoint \<Rightarrow> lex_case" where
  "mozcpp_lex_503 eof la = (Some mozcpp_anon_sym_PIPE_EQ, END_STATE)"

definition mozcpp_lex_504 :: "bool \<Rightarrow> codepoint \<Rightarrow> lex_case" where
  "mozcpp_lex_504 eof la = (Some mozcpp_anon_sym_LT_EQ_GT, END_STATE)"

definition mozcpp_lex_505 :: "bool \<Rightarrow> codepoint \<Rightarrow> lex_case" where
  "mozcpp_lex_505 eof la = (Some mozcpp_anon_sym_DASH_DASH, END_STATE)"

definition mozcpp_lex_506 :: "bool \<Rightarrow> codepoint \<Rightarrow> lex_case" where
  "mozcpp_lex_506 eof la = (Some mozcpp_anon_sym_PLUS_PLUS, END_STATE)"

definition mozcpp_lex_507 :: "bool \<Rightarrow> codepoint \<Rightarrow> lex_case" where
  "mozcpp_lex_507 eof la = (Some mozcpp_anon_sym_DOT,
      if la = CH_STAR then ADVANCE 511 else
      if la = CH_DOT then ADVANCE 266 else END_STATE)"

definition mozcpp_lex_508 :: "bool \<Rightarrow> codepoint \<Rightarrow> lex_case" where
  "mozcpp_lex_508 eof la = (Some mozcpp_anon_sym_DOT,
      if la = CH_STAR then ADVANCE 511 else
      if la = CH_DOT then ADVANCE 266 else
      if CH_0 \<le> la \<and> la \<le> CH_9 then ADVANCE 515 else END_STATE)"

definition mozcpp_lex_509 :: "bool \<Rightarrow> codepoint \<Rightarrow> lex_case" where
  "mozcpp_lex_509 eof la = (Some mozcpp_anon_sym_DOT,
      if la = CH_DOT then ADVANCE 266 else
      if CH_0 \<le> la \<and> la \<le> CH_9 then ADVANCE 515 else END_STATE)"

definition mozcpp_lex_510 :: "bool \<Rightarrow> codepoint \<Rightarrow> lex_case" where
  "mozcpp_lex_510 eof la = (Some mozcpp_anon_sym_DOT,
      if CH_0 \<le> la \<and> la \<le> CH_9 then ADVANCE 515 else END_STATE)"

definition mozcpp_lex_511 :: "bool \<Rightarrow> codepoint \<Rightarrow> lex_case" where
  "mozcpp_lex_511 eof la = (Some mozcpp_anon_sym_DOT_STAR, END_STATE)"

definition mozcpp_lex_512 :: "bool \<Rightarrow> codepoint \<Rightarrow> lex_case" where
  "mozcpp_lex_512 eof la = (Some mozcpp_anon_sym_DASH_GT, END_STATE)"

definition mozcpp_lex_513 :: "bool \<Rightarrow> codepoint \<Rightarrow> lex_case" where
  "mozcpp_lex_513 eof la = (Some mozcpp_anon_sym_DASH_GT,
      if la = CH_STAR then ADVANCE 1169 else END_STATE)"

definition mozcpp_lex_514 :: "bool \<Rightarrow> codepoint \<Rightarrow> lex_case" where
  "mozcpp_lex_514 eof la = (Some mozcpp_sym_number_literal, END_STATE)"

definition mozcpp_lex_515 :: "bool \<Rightarrow> codepoint \<Rightarrow> lex_case" where
  "mozcpp_lex_515 eof la = (Some mozcpp_sym_number_literal,
      case ADVANCE_MAP [(CH_QUOTE, 319), (CH_B, 285), (CH_b, 303), (CH_E, 314), (CH_e, 314),
        (CH_F, 522), (CH_f, 522), (CH_L, 514), (CH_l, 514)] la of Some st \<Rightarrow> ADVANCE
        st | None \<Rightarrow> (
      if CH_0 \<le> la \<and> la \<le> CH_9 then ADVANCE 515 else END_STATE))"

definition mozcpp_lex_516 :: "bool \<Rightarrow> codepoint \<Rightarrow> lex_case" where
  "mozcpp_lex_516 eof la = (Some mozcpp_sym_number_literal,
      case ADVANCE_MAP [(CH_QUOTE, 317), (CH_DOT, 523), (CH_L, 524), (CH_l, 527), (CH_B, 316),
        (CH_b, 316), (CH_E, 314), (CH_e, 314), (CH_U, 526), (CH_u, 526), (CH_X, 267), (CH_x,
        267), (CH_Z, 529), (CH_z, 529), (CH_8, 252), (CH_9, 252)] la of Some st \<Rightarrow>
        ADVANCE st | None \<Rightarrow> (
      if CH_0 \<le> la \<and> la \<le> CH_7 then ADVANCE 517 else END_STATE))"

definition mozcpp_lex_517 :: "bool \<Rightarrow> codepoint \<Rightarrow> lex_case" where
  "mozcpp_lex_517 eof la = (Some mozcpp_sym_number_literal,
      case ADVANCE_MAP [(CH_QUOTE, 317), (CH_DOT, 523), (CH_L, 524), (CH_l, 527), (CH_E, 314),
        (CH_e, 314), (CH_U, 526), (CH_u, 526), (CH_Z, 529), (CH_z, 529), (CH_8, 252), (CH_9,
        252)] la of Some st \<Rightarrow> ADVANCE st | None \<Rightarrow> (
      if CH_0 \<le> la \<and> la \<le> CH_7 then ADVANCE 517 else END_STATE))"

definition mozcpp_lex_518 :: "bool \<Rightarrow> codepoint \<Rightarrow> lex_case" where
  "mozcpp_lex_518 eof la = (Some mozcpp_sym_number_literal,
      case ADVANCE_MAP [(CH_QUOTE, 316), (CH_L, 524), (CH_l, 527), (CH_U, 526), (CH_u, 526),
        (CH_Z, 529), (CH_z, 529), (CH_0, 518), (CH_1, 518)] la of Some st \<Rightarrow> ADVANCE
        st | None \<Rightarrow> ( END_STATE))"

definition mozcpp_lex_519 :: "bool \<Rightarrow> codepoint \<Rightarrow> lex_case" where
  "mozcpp_lex_519 eof la = (Some mozcpp_sym_number_literal,
      case ADVANCE_MAP [(CH_QUOTE, 318), (CH_DOT, 523), (CH_L, 524), (CH_l, 527), (CH_E, 314),
        (CH_e, 314), (CH_U, 526), (CH_u, 526), (CH_Z, 529), (CH_z, 529)] la of Some st
        \<Rightarrow> ADVANCE st | None \<Rightarrow> (
      if CH_0 \<le> la \<and> la \<le> CH_9 then ADVANCE 519 else END_STATE))"

definition mozcpp_lex_520 :: "bool \<Rightarrow> codepoint \<Rightarrow> lex_case" where
  "mozcpp_lex_520 eof la = (Some mozcpp_sym_number_literal,
      if la = CH_QUOTE then ADVANCE 321 else
      if la = CH_B then ADVANCE 285 else
      if la = CH_b then ADVANCE 303 else
      if la = CH_F \<or> la = CH_f then ADVANCE 522 else
      if la = CH_L \<or> la = CH_l then ADVANCE 514 else
      if CH_0 \<le> la \<and> la \<le> CH_9 then ADVANCE 520 else END_STATE)"

definition mozcpp_lex_521 :: "bool \<Rightarrow> codepoint \<Rightarrow> lex_case" where
  "mozcpp_lex_521 eof la = (Some mozcpp_sym_number_literal,
      case ADVANCE_MAP [(CH_QUOTE, 323), (CH_DOT, 315), (CH_L, 524), (CH_l, 527), (CH_P, 314),
        (CH_p, 314), (CH_U, 526), (CH_u, 526), (CH_Z, 529), (CH_z, 529)] la of Some st
        \<Rightarrow> ADVANCE st | None \<Rightarrow> (
      if (CH_0 \<le> la \<and> la \<le> CH_9) \<or> (CH_A \<le> la \<and> la \<le> CH_F) \<or>
        (CH_a \<le> la \<and> la \<le> CH_f) then ADVANCE 521 else END_STATE))"

definition mozcpp_lex_522 :: "bool \<Rightarrow> codepoint \<Rightarrow> lex_case" where
  "mozcpp_lex_522 eof la = (Some mozcpp_sym_number_literal,
      if la = CH_1 then ADVANCE 271 else
      if la = CH_3 then ADVANCE 270 else
      if la = CH_6 then ADVANCE 272 else END_STATE)"

definition mozcpp_lex_523 :: "bool \<Rightarrow> codepoint \<Rightarrow> lex_case" where
  "mozcpp_lex_523 eof la = (Some mozcpp_sym_number_literal,
      case ADVANCE_MAP [(CH_B, 285), (CH_b, 303), (CH_E, 314), (CH_e, 314), (CH_F, 522), (CH_f,
        522), (CH_L, 514), (CH_l, 514)] la of Some st \<Rightarrow> ADVANCE st | None
        \<Rightarrow> (
      if CH_0 \<le> la \<and> la \<le> CH_9 then ADVANCE 515 else END_STATE))"

definition mozcpp_lex_524 :: "bool \<Rightarrow> codepoint \<Rightarrow> lex_case" where
  "mozcpp_lex_524 eof la = (Some mozcpp_sym_number_literal,
      if la = CH_L then ADVANCE 529 else
      if la = CH_U \<or> la = CH_u then ADVANCE 514 else END_STATE)"

definition mozcpp_lex_525 :: "bool \<Rightarrow> codepoint \<Rightarrow> lex_case" where
  "mozcpp_lex_525 eof la = (Some mozcpp_sym_number_literal,
      if la = CH_L then ADVANCE 514 else END_STATE)"

definition mozcpp_lex_526 :: "bool \<Rightarrow> codepoint \<Rightarrow> lex_case" where
  "mozcpp_lex_526 eof la = (Some mozcpp_sym_number_literal,
      if la = CH_L then ADVANCE 525 else
      if la = CH_l then ADVANCE 528 else
      if la = CH_Z \<or> la = CH_z then ADVANCE 514 else END_STATE)"

definition mozcpp_lex_527 :: "bool \<Rightarrow> codepoint \<Rightarrow> lex_case" where
  "mozcpp_lex_527 eof la = (Some mozcpp_sym_number_literal,
      if la = CH_l then ADVANCE 529 else
      if la = CH_U \<or> la = CH_u then ADVANCE 514 else END_STATE)"

definition mozcpp_lex_528 :: "bool \<Rightarrow> codepoint \<Rightarrow> lex_case" where
  "mozcpp_lex_528 eof la = (Some mozcpp_sym_number_literal,
      if la = CH_l then ADVANCE 514 else END_STATE)"

definition mozcpp_lex_529 :: "bool \<Rightarrow> codepoint \<Rightarrow> lex_case" where
  "mozcpp_lex_529 eof la = (Some mozcpp_sym_number_literal,
      if la = CH_U \<or> la = CH_u then ADVANCE 514 else END_STATE)"

definition mozcpp_lex_530 :: "bool \<Rightarrow> codepoint \<Rightarrow> lex_case" where
  "mozcpp_lex_530 eof la = (Some mozcpp_anon_sym_L_SQUOTE, END_STATE)"

definition mozcpp_lex_531 :: "bool \<Rightarrow> codepoint \<Rightarrow> lex_case" where
  "mozcpp_lex_531 eof la = (Some mozcpp_anon_sym_u_SQUOTE, END_STATE)"

definition mozcpp_lex_532 :: "bool \<Rightarrow> codepoint \<Rightarrow> lex_case" where
  "mozcpp_lex_532 eof la = (Some mozcpp_anon_sym_U_SQUOTE, END_STATE)"

definition mozcpp_lex_533 :: "bool \<Rightarrow> codepoint \<Rightarrow> lex_case" where
  "mozcpp_lex_533 eof la = (Some mozcpp_anon_sym_u8_SQUOTE, END_STATE)"

definition mozcpp_lex_534 :: "bool \<Rightarrow> codepoint \<Rightarrow> lex_case" where
  "mozcpp_lex_534 eof la = (Some mozcpp_anon_sym_SQUOTE, END_STATE)"

definition mozcpp_lex_535 :: "bool \<Rightarrow> codepoint \<Rightarrow> lex_case" where
  "mozcpp_lex_535 eof la = (Some mozcpp_aux_sym_char_literal_token1, END_STATE)"

definition mozcpp_lex_536 :: "bool \<Rightarrow> codepoint \<Rightarrow> lex_case" where
  "mozcpp_lex_536 eof la = (Some mozcpp_aux_sym_char_literal_token1,
      if la = CH_LF then ADVANCE 550 else
      if la = CH_CR then ADVANCE 549 else
      if la = CH_U then ADVANCE 340 else
      if la = CH_u then ADVANCE 332 else
      if la = CH_x then ADVANCE 326 else
      if CH_0 \<le> la \<and> la \<le> CH_9 then ADVANCE 552 else
      if la \<noteq> 0 then ADVANCE 549 else END_STATE)"

definition mozcpp_lex_537 :: "bool \<Rightarrow> codepoint \<Rightarrow> lex_case" where
  "mozcpp_lex_537 eof la = (Some mozcpp_aux_sym_char_literal_token1,
      if la = CH_STAR then ADVANCE 262 else
      if la = CH_SLASH then ADVANCE 1160 else END_STATE)"

definition mozcpp_lex_538 :: "bool \<Rightarrow> codepoint \<Rightarrow> lex_case" where
  "mozcpp_lex_538 eof la = (Some mozcpp_aux_sym_char_literal_token1,
      if la = CH_BACKSLASH then ADVANCE 112 else END_STATE)"

definition mozcpp_lex_539 :: "bool \<Rightarrow> codepoint \<Rightarrow> lex_case" where
  "mozcpp_lex_539 eof la = (Some mozcpp_anon_sym_L_DQUOTE, END_STATE)"

definition mozcpp_lex_540 :: "bool \<Rightarrow> codepoint \<Rightarrow> lex_case" where
  "mozcpp_lex_540 eof la = (Some mozcpp_anon_sym_u_DQUOTE, END_STATE)"

definition mozcpp_lex_541 :: "bool \<Rightarrow> codepoint \<Rightarrow> lex_case" where
  "mozcpp_lex_541 eof la = (Some mozcpp_anon_sym_U_DQUOTE, END_STATE)"

definition mozcpp_lex_542 :: "bool \<Rightarrow> codepoint \<Rightarrow> lex_case" where
  "mozcpp_lex_542 eof la = (Some mozcpp_anon_sym_u8_DQUOTE, END_STATE)"

definition mozcpp_lex_543 :: "bool \<Rightarrow> codepoint \<Rightarrow> lex_case" where
  "mozcpp_lex_543 eof la = (Some mozcpp_anon_sym_DQUOTE, END_STATE)"

definition mozcpp_lex_544 :: "bool \<Rightarrow> codepoint \<Rightarrow> lex_case" where
  "mozcpp_lex_544 eof la = (Some mozcpp_aux_sym_string_literal_token1,
      if la = CH_STAR then ADVANCE 546 else
      if la = CH_SLASH then ADVANCE 548 else
      if la \<noteq> 0 \<and> la \<noteq> CH_LF \<and> la \<noteq> CH_DQUOTE \<and> la \<noteq>
        CH_BACKSLASH then ADVANCE 548 else END_STATE)"

definition mozcpp_lex_545 :: "bool \<Rightarrow> codepoint \<Rightarrow> lex_case" where
  "mozcpp_lex_545 eof la = (Some mozcpp_aux_sym_string_literal_token1,
      if la = CH_STAR then ADVANCE 545 else
      if la = CH_SLASH then ADVANCE 548 else
      if la \<noteq> 0 \<and> la \<noteq> CH_LF \<and> la \<noteq> CH_DQUOTE \<and> la \<noteq>
        CH_BACKSLASH then ADVANCE 546 else END_STATE)"

definition mozcpp_lex_546 :: "bool \<Rightarrow> codepoint \<Rightarrow> lex_case" where
  "mozcpp_lex_546 eof la = (Some mozcpp_aux_sym_string_literal_token1,
      if la = CH_STAR then ADVANCE 545 else
      if la \<noteq> 0 \<and> la \<noteq> CH_LF \<and> la \<noteq> CH_DQUOTE \<and> la \<noteq>
        CH_BACKSLASH then ADVANCE 546 else END_STATE)"

definition mozcpp_lex_547 :: "bool \<Rightarrow> codepoint \<Rightarrow> lex_case" where
  "mozcpp_lex_547 eof la = (Some mozcpp_aux_sym_string_literal_token1,
      if la = CH_SLASH then ADVANCE 544 else
      if la = CH_TAB \<or> (CH_VT \<le> la \<and> la \<le> CH_CR) \<or> la = CH_SPACE then
        ADVANCE 547 else
      if la \<noteq> 0 \<and> (la < CH_TAB \<or> CH_CR < la) \<and> la \<noteq> CH_DQUOTE \<and>
        la \<noteq> CH_BACKSLASH then ADVANCE 548 else END_STATE)"

definition mozcpp_lex_548 :: "bool \<Rightarrow> codepoint \<Rightarrow> lex_case" where
  "mozcpp_lex_548 eof la = (Some mozcpp_aux_sym_string_literal_token1,
      if la \<noteq> 0 \<and> la \<noteq> CH_LF \<and> la \<noteq> CH_DQUOTE \<and> la \<noteq>
        CH_BACKSLASH then ADVANCE 548 else END_STATE)"

definition mozcpp_lex_549 :: "bool \<Rightarrow> codepoint \<Rightarrow> lex_case" where
  "mozcpp_lex_549 eof la = (Some mozcpp_sym_escape_sequence, END_STATE)"

definition mozcpp_lex_550 :: "bool \<Rightarrow> codepoint \<Rightarrow> lex_case" where
  "mozcpp_lex_550 eof la = (Some mozcpp_sym_escape_sequence,
      if la = CH_BACKSLASH then ADVANCE 112 else END_STATE)"

definition mozcpp_lex_551 :: "bool \<Rightarrow> codepoint \<Rightarrow> lex_case" where
  "mozcpp_lex_551 eof la = (Some mozcpp_sym_escape_sequence,
      if CH_0 \<le> la \<and> la \<le> CH_9 then ADVANCE 549 else END_STATE)"

definition mozcpp_lex_552 :: "bool \<Rightarrow> codepoint \<Rightarrow> lex_case" where
  "mozcpp_lex_552 eof la = (Some mozcpp_sym_escape_sequence,
      if CH_0 \<le> la \<and> la \<le> CH_9 then ADVANCE 551 else END_STATE)"

definition mozcpp_lex_553 :: "bool \<Rightarrow> codepoint \<Rightarrow> lex_case" where
  "mozcpp_lex_553 eof la = (Some mozcpp_sym_escape_sequence,
      if (CH_0 \<le> la \<and> la \<le> CH_9) \<or> (CH_A \<le> la \<and> la \<le> CH_F) \<or>
        (CH_a \<le> la \<and> la \<le> CH_f) then ADVANCE 549 else END_STATE)"

definition mozcpp_lex_554 :: "bool \<Rightarrow> codepoint \<Rightarrow> lex_case" where
  "mozcpp_lex_554 eof la = (Some mozcpp_sym_escape_sequence,
      if (CH_0 \<le> la \<and> la \<le> CH_9) \<or> (CH_A \<le> la \<and> la \<le> CH_F) \<or>
        (CH_a \<le> la \<and> la \<le> CH_f) then ADVANCE 553 else END_STATE)"

definition mozcpp_lex_555 :: "bool \<Rightarrow> codepoint \<Rightarrow> lex_case" where
  "mozcpp_lex_555 eof la = (Some mozcpp_sym_escape_sequence,
      if (CH_0 \<le> la \<and> la \<le> CH_9) \<or> (CH_A \<le> la \<and> la \<le> CH_F) \<or>
        (CH_a \<le> la \<and> la \<le> CH_f) then ADVANCE 554 else END_STATE)"

definition mozcpp_lex_556 :: "bool \<Rightarrow> codepoint \<Rightarrow> lex_case" where
  "mozcpp_lex_556 eof la = (Some mozcpp_sym_system_lib_string, END_STATE)"

definition mozcpp_lex_557 :: "bool \<Rightarrow> codepoint \<Rightarrow> lex_case" where
  "mozcpp_lex_557 eof la = (Some mozcpp_sym_system_lib_string,
      if la = CH_GT then ADVANCE 556 else
      if la = CH_BACKSLASH then ADVANCE 284 else
      if la \<noteq> 0 \<and> la \<noteq> CH_LF then ADVANCE 283 else END_STATE)"

definition mozcpp_lex_558 :: "bool \<Rightarrow> codepoint \<Rightarrow> lex_case" where
  "mozcpp_lex_558 eof la = (Some mozcpp_sym_true,
      if la = CH_LF then ADVANCE 1183 else
      if la = CH_BACKSLASH then ADVANCE 286 else
      if (CH_TAB \<le> la \<and> la \<le> CH_CR) \<or> la = CH_SPACE then ADVANCE 5 else
      if (CH_0 \<le> la \<and> la \<le> CH_9) \<or> (CH_A \<le> la \<and> la \<le> CH_Z) \<or> la
        = CH_UNDERSCORE then ADVANCE 792 else
      if mozcpp_in_identifier la then ADVANCE 1152 else END_STATE)"

definition mozcpp_lex_559 :: "bool \<Rightarrow> codepoint \<Rightarrow> lex_case" where
  "mozcpp_lex_559 eof la = (Some mozcpp_sym_true,
      if la = CH_BACKSLASH then ADVANCE 286 else
      if mozcpp_in_identifier la then ADVANCE 1152 else END_STATE)"

definition mozcpp_lex_560 :: "bool \<Rightarrow> codepoint \<Rightarrow> lex_case" where
  "mozcpp_lex_560 eof la = (Some mozcpp_sym_false,
      if la = CH_LF then ADVANCE 1183 else
      if la = CH_BACKSLASH then ADVANCE 286 else
      if (CH_TAB \<le> la \<and> la \<le> CH_CR) \<or> la = CH_SPACE then ADVANCE 5 else
      if (CH_0 \<le> la \<and> la \<le> CH_9) \<or> (CH_A \<le> la \<and> la \<le> CH_Z) \<or> la
        = CH_UNDERSCORE then ADVANCE 792 else
      if mozcpp_in_identifier la then ADVANCE 1152 else END_STATE)"

definition mozcpp_lex_561 :: "bool \<Rightarrow> codepoint \<Rightarrow> lex_case" where
  "mozcpp_lex_561 eof la = (Some mozcpp_sym_false,
      if la = CH_BACKSLASH then ADVANCE 286 else
      if mozcpp_in_identifier la then ADVANCE 1152 else END_STATE)"

definition mozcpp_lex_562 :: "bool \<Rightarrow> codepoint \<Rightarrow> lex_case" where
  "mozcpp_lex_562 eof la = (Some mozcpp_sym_identifier,
      if la = CH_LF then ADVANCE 1183 else
      if la = CH_DQUOTE then ADVANCE 1165 else
      if la = CH_E then ADVANCE 745 else
      if la = CH_BACKSLASH then ADVANCE 286 else
      if (CH_TAB \<le> la \<and> la \<le> CH_CR) \<or> la = CH_SPACE then ADVANCE 5 else
      if (CH_0 \<le> la \<and> la \<le> CH_9) \<or> (CH_A \<le> la \<and> la \<le> CH_Z) \<or> la
        = CH_UNDERSCORE then ADVANCE 792 else
      if mozcpp_in_identifier la then ADVANCE 1152 else END_STATE)"

definition mozcpp_lex_563 :: "bool \<Rightarrow> codepoint \<Rightarrow> lex_case" where
  "mozcpp_lex_563 eof la = (Some mozcpp_sym_identifier,
      if la = CH_LF then ADVANCE 1183 else
      if la = CH_DQUOTE then ADVANCE 1167 else
      if la = CH_BACKSLASH then ADVANCE 286 else
      if (CH_TAB \<le> la \<and> la \<le> CH_CR) \<or> la = CH_SPACE then ADVANCE 5 else
      if (CH_0 \<le> la \<and> la \<le> CH_9) \<or> (CH_A \<le> la \<and> la \<le> CH_Z) \<or> la
        = CH_UNDERSCORE then ADVANCE 792 else
      if mozcpp_in_identifier la then ADVANCE 1152 else END_STATE)"

definition mozcpp_lex_564 :: "bool \<Rightarrow> codepoint \<Rightarrow> lex_case" where
  "mozcpp_lex_564 eof la = (Some mozcpp_sym_identifier,
      if la = CH_LF then ADVANCE 1183 else
      if la = CH_2 then ADVANCE 482 else
      if la = CH_BACKSLASH then ADVANCE 286 else
      if (CH_TAB \<le> la \<and> la \<le> CH_CR) \<or> la = CH_SPACE then ADVANCE 5 else
      if (CH_0 \<le> la \<and> la \<le> CH_9) \<or> (CH_A \<le> la \<and> la \<le> CH_Z) \<or> la
        = CH_UNDERSCORE then ADVANCE 792 else
      if mozcpp_in_identifier la then ADVANCE 1152 else END_STATE)"

definition mozcpp_lex_565 :: "bool \<Rightarrow> codepoint \<Rightarrow> lex_case" where
  "mozcpp_lex_565 eof la = (Some mozcpp_sym_identifier,
      if la = CH_LF then ADVANCE 1183 else
      if la = CH_3 then ADVANCE 564 else
      if la = CH_6 then ADVANCE 566 else
      if la = CH_S then ADVANCE 653 else
      if la = CH_U then ADVANCE 687 else
      if la = CH_BACKSLASH then ADVANCE 286 else
      if (CH_TAB \<le> la \<and> la \<le> CH_CR) \<or> la = CH_SPACE then ADVANCE 5 else
      if (CH_0 \<le> la \<and> la \<le> CH_9) \<or> (CH_A \<le> la \<and> la \<le> CH_Z) \<or> la
        = CH_UNDERSCORE then ADVANCE 792 else
      if mozcpp_in_identifier la then ADVANCE 1152 else END_STATE)"

definition mozcpp_lex_566 :: "bool \<Rightarrow> codepoint \<Rightarrow> lex_case" where
  "mozcpp_lex_566 eof la = (Some mozcpp_sym_identifier,
      if la = CH_LF then ADVANCE 1183 else
      if la = CH_4 then ADVANCE 482 else
      if la = CH_BACKSLASH then ADVANCE 286 else
      if (CH_TAB \<le> la \<and> la \<le> CH_CR) \<or> la = CH_SPACE then ADVANCE 5 else
      if (CH_0 \<le> la \<and> la \<le> CH_9) \<or> (CH_A \<le> la \<and> la \<le> CH_Z) \<or> la
        = CH_UNDERSCORE then ADVANCE 792 else
      if mozcpp_in_identifier la then ADVANCE 1152 else END_STATE)"

definition mozcpp_lex_567 :: "bool \<Rightarrow> codepoint \<Rightarrow> lex_case" where
  "mozcpp_lex_567 eof la = (Some mozcpp_sym_identifier,
      if la = CH_LF then ADVANCE 1183 else
      if la = CH_6 then ADVANCE 482 else
      if la = CH_BACKSLASH then ADVANCE 286 else
      if (CH_TAB \<le> la \<and> la \<le> CH_CR) \<or> la = CH_SPACE then ADVANCE 5 else
      if (CH_0 \<le> la \<and> la \<le> CH_9) \<or> (CH_A \<le> la \<and> la \<le> CH_Z) \<or> la
        = CH_UNDERSCORE then ADVANCE 792 else
      if mozcpp_in_identifier la then ADVANCE 1152 else END_STATE)"

definition mozcpp_lex_568 :: "bool \<Rightarrow> codepoint \<Rightarrow> lex_case" where
  "mozcpp_lex_568 eof la = (Some mozcpp_sym_identifier,
      if la = CH_LF then ADVANCE 1183 else
      if la = CH_A then ADVANCE 674 else
      if la = CH_BACKSLASH then ADVANCE 286 else
      if (CH_TAB \<le> la \<and> la \<le> CH_CR) \<or> la = CH_SPACE then ADVANCE 5 else
      if (CH_0 \<le> la \<and> la \<le> CH_9) \<or> (CH_B \<le> la \<and> la \<le> CH_Z) \<or> la
        = CH_UNDERSCORE then ADVANCE 792 else
      if mozcpp_in_identifier la then ADVANCE 1152 else END_STATE)"

definition mozcpp_lex_569 :: "bool \<Rightarrow> codepoint \<Rightarrow> lex_case" where
  "mozcpp_lex_569 eof la = (Some mozcpp_sym_identifier,
      if la = CH_LF then ADVANCE 1183 else
      if la = CH_A then ADVANCE 482 else
      if la = CH_BACKSLASH then ADVANCE 286 else
      if (CH_TAB \<le> la \<and> la \<le> CH_CR) \<or> la = CH_SPACE then ADVANCE 5 else
      if (CH_0 \<le> la \<and> la \<le> CH_9) \<or> (CH_B \<le> la \<and> la \<le> CH_Z) \<or> la
        = CH_UNDERSCORE then ADVANCE 792 else
      if mozcpp_in_identifier la then ADVANCE 1152 else END_STATE)"

definition mozcpp_lex_570 :: "bool \<Rightarrow> codepoint \<Rightarrow> lex_case" where
  "mozcpp_lex_570 eof la = (Some mozcpp_sym_identifier,
      if la = CH_LF then ADVANCE 1183 else
      if la = CH_A then ADVANCE 721 else
      if la = CH_BACKSLASH then ADVANCE 286 else
      if (CH_TAB \<le> la \<and> la \<le> CH_CR) \<or> la = CH_SPACE then ADVANCE 5 else
      if (CH_0 \<le> la \<and> la \<le> CH_9) \<or> (CH_B \<le> la \<and> la \<le> CH_Z) \<or> la
        = CH_UNDERSCORE then ADVANCE 792 else
      if mozcpp_in_identifier la then ADVANCE 1152 else END_STATE)"

definition mozcpp_lex_571 :: "bool \<Rightarrow> codepoint \<Rightarrow> lex_case" where
  "mozcpp_lex_571 eof la = (Some mozcpp_sym_identifier,
      if la = CH_LF then ADVANCE 1183 else
      if la = CH_A then ADVANCE 629 else
      if la = CH_BACKSLASH then ADVANCE 286 else
      if (CH_TAB \<le> la \<and> la \<le> CH_CR) \<or> la = CH_SPACE then ADVANCE 5 else
      if (CH_0 \<le> la \<and> la \<le> CH_9) \<or> (CH_B \<le> la \<and> la \<le> CH_Z) \<or> la
        = CH_UNDERSCORE then ADVANCE 792 else
      if mozcpp_in_identifier la then ADVANCE 1152 else END_STATE)"

definition mozcpp_lex_572 :: "bool \<Rightarrow> codepoint \<Rightarrow> lex_case" where
  "mozcpp_lex_572 eof la = (Some mozcpp_sym_identifier,
      if la = CH_LF then ADVANCE 1183 else
      if la = CH_A then ADVANCE 664 else
      if la = CH_K then ADVANCE 614 else
      if la = CH_BACKSLASH then ADVANCE 286 else
      if (CH_TAB \<le> la \<and> la \<le> CH_CR) \<or> la = CH_SPACE then ADVANCE 5 else
      if (CH_0 \<le> la \<and> la \<le> CH_9) \<or> (CH_B \<le> la \<and> la \<le> CH_Z) \<or> la
        = CH_UNDERSCORE then ADVANCE 792 else
      if mozcpp_in_identifier la then ADVANCE 1152 else END_STATE)"

definition mozcpp_lex_573 :: "bool \<Rightarrow> codepoint \<Rightarrow> lex_case" where
  "mozcpp_lex_573 eof la = (Some mozcpp_sym_identifier,
      if la = CH_LF then ADVANCE 1183 else
      if la = CH_A then ADVANCE 726 else
      if la = CH_BACKSLASH then ADVANCE 286 else
      if (CH_TAB \<le> la \<and> la \<le> CH_CR) \<or> la = CH_SPACE then ADVANCE 5 else
      if (CH_0 \<le> la \<and> la \<le> CH_9) \<or> (CH_B \<le> la \<and> la \<le> CH_Z) \<or> la
        = CH_UNDERSCORE then ADVANCE 792 else
      if mozcpp_in_identifier la then ADVANCE 1152 else END_STATE)"

definition mozcpp_lex_574 :: "bool \<Rightarrow> codepoint \<Rightarrow> lex_case" where
  "mozcpp_lex_574 eof la = (Some mozcpp_sym_identifier,
      if la = CH_LF then ADVANCE 1183 else
      if la = CH_A then ADVANCE 756 else
      if la = CH_BACKSLASH then ADVANCE 286 else
      if (CH_TAB \<le> la \<and> la \<le> CH_CR) \<or> la = CH_SPACE then ADVANCE 5 else
      if (CH_0 \<le> la \<and> la \<le> CH_9) \<or> (CH_B \<le> la \<and> la \<le> CH_Z) \<or> la
        = CH_UNDERSCORE then ADVANCE 792 else
      if mozcpp_in_identifier la then ADVANCE 1152 else END_STATE)"

definition mozcpp_lex_575 :: "bool \<Rightarrow> codepoint \<Rightarrow> lex_case" where
  "mozcpp_lex_575 eof la = (Some mozcpp_sym_identifier,
      if la = CH_LF then ADVANCE 1183 else
      if la = CH_A then ADVANCE 671 else
      if la = CH_E then ADVANCE 678 else
      if la = CH_BACKSLASH then ADVANCE 286 else
      if (CH_TAB \<le> la \<and> la \<le> CH_CR) \<or> la = CH_SPACE then ADVANCE 5 else
      if (CH_0 \<le> la \<and> la \<le> CH_9) \<or> (CH_B \<le> la \<and> la \<le> CH_Z) \<or> la
        = CH_UNDERSCORE then ADVANCE 792 else
      if mozcpp_in_identifier la then ADVANCE 1152 else END_STATE)"

definition mozcpp_lex_576 :: "bool \<Rightarrow> codepoint \<Rightarrow> lex_case" where
  "mozcpp_lex_576 eof la = (Some mozcpp_sym_identifier,
      if la = CH_LF then ADVANCE 1183 else
      if la = CH_A then ADVANCE 665 else
      if la = CH_BACKSLASH then ADVANCE 286 else
      if (CH_TAB \<le> la \<and> la \<le> CH_CR) \<or> la = CH_SPACE then ADVANCE 5 else
      if (CH_0 \<le> la \<and> la \<le> CH_9) \<or> (CH_B \<le> la \<and> la \<le> CH_Z) \<or> la
        = CH_UNDERSCORE then ADVANCE 792 else
      if mozcpp_in_identifier la then ADVANCE 1152 else END_STATE)"

definition mozcpp_lex_577 :: "bool \<Rightarrow> codepoint \<Rightarrow> lex_case" where
  "mozcpp_lex_577 eof la = (Some mozcpp_sym_identifier,
      if la = CH_LF then ADVANCE 1183 else
      if la = CH_A then ADVANCE 678 else
      if la = CH_BACKSLASH then ADVANCE 286 else
      if (CH_TAB \<le> la \<and> la \<le> CH_CR) \<or> la = CH_SPACE then ADVANCE 5 else
      if (CH_0 \<le> la \<and> la \<le> CH_9) \<or> (CH_B \<le> la \<and> la \<le> CH_Z) \<or> la
        = CH_UNDERSCORE then ADVANCE 792 else
      if mozcpp_in_identifier la then ADVANCE 1152 else END_STATE)"

definition mozcpp_lex_578 :: "bool \<Rightarrow> codepoint \<Rightarrow> lex_case" where
  "mozcpp_lex_578 eof la = (Some mozcpp_sym_identifier,
      if la = CH_LF then ADVANCE 1183 else
      if la = CH_A then ADVANCE 666 else
      if la = CH_BACKSLASH then ADVANCE 286 else
      if (CH_TAB \<le> la \<and> la \<le> CH_CR) \<or> la = CH_SPACE then ADVANCE 5 else
      if (CH_0 \<le> la \<and> la \<le> CH_9) \<or> (CH_B \<le> la \<and> la \<le> CH_Z) \<or> la
        = CH_UNDERSCORE then ADVANCE 792 else
      if mozcpp_in_identifier la then ADVANCE 1152 else END_STATE)"

definition mozcpp_lex_579 :: "bool \<Rightarrow> codepoint \<Rightarrow> lex_case" where
  "mozcpp_lex_579 eof la = (Some mozcpp_sym_identifier,
      case ADVANCE_MAP [(CH_LF, 1183), (CH_A, 735), (CH_B, 719), (CH_C, 693), (CH_D, 779), (CH_H,
        582), (CH_I, 686), (CH_L, 718), (CH_S, 760), (CH_T, 742), (CH_W, 700), (CH_BACKSLASH,
        286)] la of Some st \<Rightarrow> ADVANCE st | None \<Rightarrow> (
      if (CH_TAB \<le> la \<and> la \<le> CH_CR) \<or> la = CH_SPACE then ADVANCE 5 else
      if (CH_0 \<le> la \<and> la \<le> CH_9) \<or> (CH_E \<le> la \<and> la \<le> CH_Z) \<or> la
        = CH_UNDERSCORE then ADVANCE 792 else
      if mozcpp_in_identifier la then ADVANCE 1152 else END_STATE))"

definition mozcpp_lex_580 :: "bool \<Rightarrow> codepoint \<Rightarrow> lex_case" where
  "mozcpp_lex_580 eof la = (Some mozcpp_sym_identifier,
      if la = CH_LF then ADVANCE 1183 else
      if la = CH_A then ADVANCE 735 else
      if la = CH_BACKSLASH then ADVANCE 286 else
      if (CH_TAB \<le> la \<and> la \<le> CH_CR) \<or> la = CH_SPACE then ADVANCE 5 else
      if (CH_0 \<le> la \<and> la \<le> CH_9) \<or> (CH_B \<le> la \<and> la \<le> CH_Z) \<or> la
        = CH_UNDERSCORE then ADVANCE 792 else
      if mozcpp_in_identifier la then ADVANCE 1152 else END_STATE)"

definition mozcpp_lex_581 :: "bool \<Rightarrow> codepoint \<Rightarrow> lex_case" where
  "mozcpp_lex_581 eof la = (Some mozcpp_sym_identifier,
      if la = CH_LF then ADVANCE 1183 else
      if la = CH_A then ADVANCE 762 else
      if la = CH_BACKSLASH then ADVANCE 286 else
      if (CH_TAB \<le> la \<and> la \<le> CH_CR) \<or> la = CH_SPACE then ADVANCE 5 else
      if (CH_0 \<le> la \<and> la \<le> CH_9) \<or> (CH_B \<le> la \<and> la \<le> CH_Z) \<or> la
        = CH_UNDERSCORE then ADVANCE 792 else
      if mozcpp_in_identifier la then ADVANCE 1152 else END_STATE)"

definition mozcpp_lex_582 :: "bool \<Rightarrow> codepoint \<Rightarrow> lex_case" where
  "mozcpp_lex_582 eof la = (Some mozcpp_sym_identifier,
      if la = CH_LF then ADVANCE 1183 else
      if la = CH_A then ADVANCE 677 else
      if la = CH_BACKSLASH then ADVANCE 286 else
      if (CH_TAB \<le> la \<and> la \<le> CH_CR) \<or> la = CH_SPACE then ADVANCE 5 else
      if (CH_0 \<le> la \<and> la \<le> CH_9) \<or> (CH_B \<le> la \<and> la \<le> CH_Z) \<or> la
        = CH_UNDERSCORE then ADVANCE 792 else
      if mozcpp_in_identifier la then ADVANCE 1152 else END_STATE)"

definition mozcpp_lex_583 :: "bool \<Rightarrow> codepoint \<Rightarrow> lex_case" where
  "mozcpp_lex_583 eof la = (Some mozcpp_sym_identifier,
      if la = CH_LF then ADVANCE 1183 else
      if la = CH_A then ADVANCE 766 else
      if la = CH_BACKSLASH then ADVANCE 286 else
      if (CH_TAB \<le> la \<and> la \<le> CH_CR) \<or> la = CH_SPACE then ADVANCE 5 else
      if (CH_0 \<le> la \<and> la \<le> CH_9) \<or> (CH_B \<le> la \<and> la \<le> CH_Z) \<or> la
        = CH_UNDERSCORE then ADVANCE 792 else
      if mozcpp_in_identifier la then ADVANCE 1152 else END_STATE)"

definition mozcpp_lex_584 :: "bool \<Rightarrow> codepoint \<Rightarrow> lex_case" where
  "mozcpp_lex_584 eof la = (Some mozcpp_sym_identifier,
      if la = CH_LF then ADVANCE 1183 else
      if la = CH_A then ADVANCE 691 else
      if la = CH_BACKSLASH then ADVANCE 286 else
      if (CH_TAB \<le> la \<and> la \<le> CH_CR) \<or> la = CH_SPACE then ADVANCE 5 else
      if (CH_0 \<le> la \<and> la \<le> CH_9) \<or> (CH_B \<le> la \<and> la \<le> CH_Z) \<or> la
        = CH_UNDERSCORE then ADVANCE 792 else
      if mozcpp_in_identifier la then ADVANCE 1152 else END_STATE)"

definition mozcpp_lex_585 :: "bool \<Rightarrow> codepoint \<Rightarrow> lex_case" where
  "mozcpp_lex_585 eof la = (Some mozcpp_sym_identifier,
      if la = CH_LF then ADVANCE 1183 else
      if la = CH_A then ADVANCE 595 else
      if la = CH_BACKSLASH then ADVANCE 286 else
      if (CH_TAB \<le> la \<and> la \<le> CH_CR) \<or> la = CH_SPACE then ADVANCE 5 else
      if (CH_0 \<le> la \<and> la \<le> CH_9) \<or> (CH_B \<le> la \<and> la \<le> CH_Z) \<or> la
        = CH_UNDERSCORE then ADVANCE 792 else
      if mozcpp_in_identifier la then ADVANCE 1152 else END_STATE)"

definition mozcpp_lex_586 :: "bool \<Rightarrow> codepoint \<Rightarrow> lex_case" where
  "mozcpp_lex_586 eof la = (Some mozcpp_sym_identifier,
      if la = CH_LF then ADVANCE 1183 else
      if la = CH_B then ADVANCE 780 else
      if la = CH_C then ADVANCE 636 else
      if la = CH_S then ADVANCE 760 else
      if la = CH_BACKSLASH then ADVANCE 286 else
      if (CH_TAB \<le> la \<and> la \<le> CH_CR) \<or> la = CH_SPACE then ADVANCE 5 else
      if (CH_0 \<le> la \<and> la \<le> CH_9) \<or> (CH_A \<le> la \<and> la \<le> CH_Z) \<or> la
        = CH_UNDERSCORE then ADVANCE 792 else
      if mozcpp_in_identifier la then ADVANCE 1152 else END_STATE)"

definition mozcpp_lex_587 :: "bool \<Rightarrow> codepoint \<Rightarrow> lex_case" where
  "mozcpp_lex_587 eof la = (Some mozcpp_sym_identifier,
      if la = CH_LF then ADVANCE 1183 else
      if la = CH_B then ADVANCE 661 else
      if la = CH_BACKSLASH then ADVANCE 286 else
      if (CH_TAB \<le> la \<and> la \<le> CH_CR) \<or> la = CH_SPACE then ADVANCE 5 else
      if (CH_0 \<le> la \<and> la \<le> CH_9) \<or> (CH_A \<le> la \<and> la \<le> CH_Z) \<or> la
        = CH_UNDERSCORE then ADVANCE 792 else
      if mozcpp_in_identifier la then ADVANCE 1152 else END_STATE)"

definition mozcpp_lex_588 :: "bool \<Rightarrow> codepoint \<Rightarrow> lex_case" where
  "mozcpp_lex_588 eof la = (Some mozcpp_sym_identifier,
      if la = CH_LF then ADVANCE 1183 else
      if la = CH_B then ADVANCE 578 else
      if la = CH_BACKSLASH then ADVANCE 286 else
      if (CH_TAB \<le> la \<and> la \<le> CH_CR) \<or> la = CH_SPACE then ADVANCE 5 else
      if (CH_0 \<le> la \<and> la \<le> CH_9) \<or> (CH_A \<le> la \<and> la \<le> CH_Z) \<or> la
        = CH_UNDERSCORE then ADVANCE 792 else
      if mozcpp_in_identifier la then ADVANCE 1152 else END_STATE)"

definition mozcpp_lex_589 :: "bool \<Rightarrow> codepoint \<Rightarrow> lex_case" where
  "mozcpp_lex_589 eof la = (Some mozcpp_sym_identifier,
      if la = CH_LF then ADVANCE 1183 else
      if la = CH_C then ADVANCE 636 else
      if la = CH_H then ADVANCE 576 else
      if la = CH_I then ADVANCE 680 else
      if la = CH_L then ADVANCE 714 else
      if la = CH_S then ADVANCE 643 else
      if la = CH_BACKSLASH then ADVANCE 286 else
      if (CH_TAB \<le> la \<and> la \<le> CH_CR) \<or> la = CH_SPACE then ADVANCE 5 else
      if (CH_0 \<le> la \<and> la \<le> CH_9) \<or> (CH_A \<le> la \<and> la \<le> CH_Z) \<or> la
        = CH_UNDERSCORE then ADVANCE 792 else
      if mozcpp_in_identifier la then ADVANCE 1152 else END_STATE)"

definition mozcpp_lex_590 :: "bool \<Rightarrow> codepoint \<Rightarrow> lex_case" where
  "mozcpp_lex_590 eof la = (Some mozcpp_sym_identifier,
      if la = CH_LF then ADVANCE 1183 else
      if la = CH_C then ADVANCE 636 else
      if la = CH_O then ADVANCE 729 else
      if la = CH_S then ADVANCE 760 else
      if la = CH_BACKSLASH then ADVANCE 286 else
      if (CH_TAB \<le> la \<and> la \<le> CH_CR) \<or> la = CH_SPACE then ADVANCE 5 else
      if (CH_0 \<le> la \<and> la \<le> CH_9) \<or> (CH_A \<le> la \<and> la \<le> CH_Z) \<or> la
        = CH_UNDERSCORE then ADVANCE 792 else
      if mozcpp_in_identifier la then ADVANCE 1152 else END_STATE)"

definition mozcpp_lex_591 :: "bool \<Rightarrow> codepoint \<Rightarrow> lex_case" where
  "mozcpp_lex_591 eof la = (Some mozcpp_sym_identifier,
      if la = CH_LF then ADVANCE 1183 else
      if la = CH_C then ADVANCE 597 else
      if la = CH_L then ADVANCE 628 else
      if la = CH_N then ADVANCE 604 else
      if la = CH_BACKSLASH then ADVANCE 286 else
      if (CH_TAB \<le> la \<and> la \<le> CH_CR) \<or> la = CH_SPACE then ADVANCE 5 else
      if (CH_0 \<le> la \<and> la \<le> CH_9) \<or> (CH_A \<le> la \<and> la \<le> CH_Z) \<or> la
        = CH_UNDERSCORE then ADVANCE 792 else
      if mozcpp_in_identifier la then ADVANCE 1152 else END_STATE)"

definition mozcpp_lex_592 :: "bool \<Rightarrow> codepoint \<Rightarrow> lex_case" where
  "mozcpp_lex_592 eof la = (Some mozcpp_sym_identifier,
      if la = CH_LF then ADVANCE 1183 else
      if la = CH_C then ADVANCE 482 else
      if la = CH_D then ADVANCE 619 else
      if la = CH_E then ADVANCE 741 else
      if la = CH_R then ADVANCE 696 else
      if la = CH_W then ADVANCE 721 else
      if la = CH_BACKSLASH then ADVANCE 286 else
      if (CH_TAB \<le> la \<and> la \<le> CH_CR) \<or> la = CH_SPACE then ADVANCE 5 else
      if (CH_0 \<le> la \<and> la \<le> CH_9) \<or> (CH_A \<le> la \<and> la \<le> CH_Z) \<or> la
        = CH_UNDERSCORE then ADVANCE 792 else
      if mozcpp_in_identifier la then ADVANCE 1152 else END_STATE)"

definition mozcpp_lex_593 :: "bool \<Rightarrow> codepoint \<Rightarrow> lex_case" where
  "mozcpp_lex_593 eof la = (Some mozcpp_sym_identifier,
      if la = CH_LF then ADVANCE 1183 else
      if la = CH_C then ADVANCE 482 else
      if la = CH_BACKSLASH then ADVANCE 286 else
      if (CH_TAB \<le> la \<and> la \<le> CH_CR) \<or> la = CH_SPACE then ADVANCE 5 else
      if (CH_0 \<le> la \<and> la \<le> CH_9) \<or> (CH_A \<le> la \<and> la \<le> CH_Z) \<or> la
        = CH_UNDERSCORE then ADVANCE 792 else
      if mozcpp_in_identifier la then ADVANCE 1152 else END_STATE)"

definition mozcpp_lex_594 :: "bool \<Rightarrow> codepoint \<Rightarrow> lex_case" where
  "mozcpp_lex_594 eof la = (Some mozcpp_sym_identifier,
      if la = CH_LF then ADVANCE 1183 else
      if la = CH_C then ADVANCE 662 else
      if la = CH_BACKSLASH then ADVANCE 286 else
      if (CH_TAB \<le> la \<and> la \<le> CH_CR) \<or> la = CH_SPACE then ADVANCE 5 else
      if (CH_0 \<le> la \<and> la \<le> CH_9) \<or> (CH_A \<le> la \<and> la \<le> CH_Z) \<or> la
        = CH_UNDERSCORE then ADVANCE 792 else
      if mozcpp_in_identifier la then ADVANCE 1152 else END_STATE)"

definition mozcpp_lex_595 :: "bool \<Rightarrow> codepoint \<Rightarrow> lex_case" where
  "mozcpp_lex_595 eof la = (Some mozcpp_sym_identifier,
      if la = CH_LF then ADVANCE 1183 else
      if la = CH_C then ADVANCE 609 else
      if la = CH_BACKSLASH then ADVANCE 286 else
      if (CH_TAB \<le> la \<and> la \<le> CH_CR) \<or> la = CH_SPACE then ADVANCE 5 else
      if (CH_0 \<le> la \<and> la \<le> CH_9) \<or> (CH_A \<le> la \<and> la \<le> CH_Z) \<or> la
        = CH_UNDERSCORE then ADVANCE 792 else
      if mozcpp_in_identifier la then ADVANCE 1152 else END_STATE)"

definition mozcpp_lex_596 :: "bool \<Rightarrow> codepoint \<Rightarrow> lex_case" where
  "mozcpp_lex_596 eof la = (Some mozcpp_sym_identifier,
      if la = CH_LF then ADVANCE 1183 else
      if la = CH_C then ADVANCE 648 else
      if la = CH_O then ADVANCE 684 else
      if la = CH_BACKSLASH then ADVANCE 286 else
      if (CH_TAB \<le> la \<and> la \<le> CH_CR) \<or> la = CH_SPACE then ADVANCE 5 else
      if (CH_0 \<le> la \<and> la \<le> CH_9) \<or> (CH_A \<le> la \<and> la \<le> CH_Z) \<or> la
        = CH_UNDERSCORE then ADVANCE 792 else
      if mozcpp_in_identifier la then ADVANCE 1152 else END_STATE)"

definition mozcpp_lex_597 :: "bool \<Rightarrow> codepoint \<Rightarrow> lex_case" where
  "mozcpp_lex_597 eof la = (Some mozcpp_sym_identifier,
      if la = CH_LF then ADVANCE 1183 else
      if la = CH_C then ADVANCE 621 else
      if la = CH_BACKSLASH then ADVANCE 286 else
      if (CH_TAB \<le> la \<and> la \<le> CH_CR) \<or> la = CH_SPACE then ADVANCE 5 else
      if (CH_0 \<le> la \<and> la \<le> CH_9) \<or> (CH_A \<le> la \<and> la \<le> CH_Z) \<or> la
        = CH_UNDERSCORE then ADVANCE 792 else
      if mozcpp_in_identifier la then ADVANCE 1152 else END_STATE)"

definition mozcpp_lex_598 :: "bool \<Rightarrow> codepoint \<Rightarrow> lex_case" where
  "mozcpp_lex_598 eof la = (Some mozcpp_sym_identifier,
      if la = CH_LF then ADVANCE 1183 else
      if la = CH_C then ADVANCE 712 else
      if la = CH_N then ADVANCE 747 else
      if la = CH_BACKSLASH then ADVANCE 286 else
      if (CH_TAB \<le> la \<and> la \<le> CH_CR) \<or> la = CH_SPACE then ADVANCE 5 else
      if (CH_0 \<le> la \<and> la \<le> CH_9) \<or> (CH_A \<le> la \<and> la \<le> CH_Z) \<or> la
        = CH_UNDERSCORE then ADVANCE 792 else
      if mozcpp_in_identifier la then ADVANCE 1152 else END_STATE)"

definition mozcpp_lex_599 :: "bool \<Rightarrow> codepoint \<Rightarrow> lex_case" where
  "mozcpp_lex_599 eof la = (Some mozcpp_sym_identifier,
      if la = CH_LF then ADVANCE 1183 else
      if la = CH_C then ADVANCE 620 else
      if la = CH_BACKSLASH then ADVANCE 286 else
      if (CH_TAB \<le> la \<and> la \<le> CH_CR) \<or> la = CH_SPACE then ADVANCE 5 else
      if (CH_0 \<le> la \<and> la \<le> CH_9) \<or> (CH_A \<le> la \<and> la \<le> CH_Z) \<or> la
        = CH_UNDERSCORE then ADVANCE 792 else
      if mozcpp_in_identifier la then ADVANCE 1152 else END_STATE)"

definition mozcpp_lex_600 :: "bool \<Rightarrow> codepoint \<Rightarrow> lex_case" where
  "mozcpp_lex_600 eof la = (Some mozcpp_sym_identifier,
      if la = CH_LF then ADVANCE 1183 else
      if la = CH_C then ADVANCE 711 else
      if la = CH_BACKSLASH then ADVANCE 286 else
      if (CH_TAB \<le> la \<and> la \<le> CH_CR) \<or> la = CH_SPACE then ADVANCE 5 else
      if (CH_0 \<le> la \<and> la \<le> CH_9) \<or> (CH_A \<le> la \<and> la \<le> CH_Z) \<or> la
        = CH_UNDERSCORE then ADVANCE 792 else
      if mozcpp_in_identifier la then ADVANCE 1152 else END_STATE)"

definition mozcpp_lex_601 :: "bool \<Rightarrow> codepoint \<Rightarrow> lex_case" where
  "mozcpp_lex_601 eof la = (Some mozcpp_sym_identifier,
      if la = CH_LF then ADVANCE 1183 else
      if la = CH_C then ADVANCE 578 else
      if la = CH_BACKSLASH then ADVANCE 286 else
      if (CH_TAB \<le> la \<and> la \<le> CH_CR) \<or> la = CH_SPACE then ADVANCE 5 else
      if (CH_0 \<le> la \<and> la \<le> CH_9) \<or> (CH_A \<le> la \<and> la \<le> CH_Z) \<or> la
        = CH_UNDERSCORE then ADVANCE 792 else
      if mozcpp_in_identifier la then ADVANCE 1152 else END_STATE)"

definition mozcpp_lex_602 :: "bool \<Rightarrow> codepoint \<Rightarrow> lex_case" where
  "mozcpp_lex_602 eof la = (Some mozcpp_sym_identifier,
      if la = CH_LF then ADVANCE 1183 else
      if la = CH_D then ADVANCE 482 else
      if la = CH_BACKSLASH then ADVANCE 286 else
      if (CH_TAB \<le> la \<and> la \<le> CH_CR) \<or> la = CH_SPACE then ADVANCE 5 else
      if (CH_0 \<le> la \<and> la \<le> CH_9) \<or> (CH_A \<le> la \<and> la \<le> CH_Z) \<or> la
        = CH_UNDERSCORE then ADVANCE 792 else
      if mozcpp_in_identifier la then ADVANCE 1152 else END_STATE)"

definition mozcpp_lex_603 :: "bool \<Rightarrow> codepoint \<Rightarrow> lex_case" where
  "mozcpp_lex_603 eof la = (Some mozcpp_sym_identifier,
      if la = CH_LF then ADVANCE 1183 else
      if la = CH_D then ADVANCE 478 else
      if la = CH_BACKSLASH then ADVANCE 286 else
      if (CH_TAB \<le> la \<and> la \<le> CH_CR) \<or> la = CH_SPACE then ADVANCE 5 else
      if (CH_0 \<le> la \<and> la \<le> CH_9) \<or> (CH_A \<le> la \<and> la \<le> CH_Z) \<or> la
        = CH_UNDERSCORE then ADVANCE 792 else
      if mozcpp_in_identifier la then ADVANCE 1152 else END_STATE)"

definition mozcpp_lex_604 :: "bool \<Rightarrow> codepoint \<Rightarrow> lex_case" where
  "mozcpp_lex_604 eof la = (Some mozcpp_sym_identifier,
      if la = CH_LF then ADVANCE 1183 else
      if la = CH_D then ADVANCE 668 else
      if la = CH_BACKSLASH then ADVANCE 286 else
      if (CH_TAB \<le> la \<and> la \<le> CH_CR) \<or> la = CH_SPACE then ADVANCE 5 else
      if (CH_0 \<le> la \<and> la \<le> CH_9) \<or> (CH_A \<le> la \<and> la \<le> CH_Z) \<or> la
        = CH_UNDERSCORE then ADVANCE 792 else
      if mozcpp_in_identifier la then ADVANCE 1152 else END_STATE)"

definition mozcpp_lex_605 :: "bool \<Rightarrow> codepoint \<Rightarrow> lex_case" where
  "mozcpp_lex_605 eof la = (Some mozcpp_sym_identifier,
      if la = CH_LF then ADVANCE 1183 else
      if la = CH_D then ADVANCE 771 else
      if la = CH_N then ADVANCE 654 else
      if la = CH_BACKSLASH then ADVANCE 286 else
      if (CH_TAB \<le> la \<and> la \<le> CH_CR) \<or> la = CH_SPACE then ADVANCE 5 else
      if (CH_0 \<le> la \<and> la \<le> CH_9) \<or> (CH_A \<le> la \<and> la \<le> CH_Z) \<or> la
        = CH_UNDERSCORE then ADVANCE 792 else
      if mozcpp_in_identifier la then ADVANCE 1152 else END_STATE)"

definition mozcpp_lex_606 :: "bool \<Rightarrow> codepoint \<Rightarrow> lex_case" where
  "mozcpp_lex_606 eof la = (Some mozcpp_sym_identifier,
      if la = CH_LF then ADVANCE 1183 else
      if la = CH_D then ADVANCE 658 else
      if la = CH_L then ADVANCE 698 else
      if la = CH_BACKSLASH then ADVANCE 286 else
      if (CH_TAB \<le> la \<and> la \<le> CH_CR) \<or> la = CH_SPACE then ADVANCE 5 else
      if (CH_0 \<le> la \<and> la \<le> CH_9) \<or> (CH_A \<le> la \<and> la \<le> CH_Z) \<or> la
        = CH_UNDERSCORE then ADVANCE 792 else
      if mozcpp_in_identifier la then ADVANCE 1152 else END_STATE)"

definition mozcpp_lex_607 :: "bool \<Rightarrow> codepoint \<Rightarrow> lex_case" where
  "mozcpp_lex_607 eof la = (Some mozcpp_sym_identifier,
      if la = CH_LF then ADVANCE 1183 else
      if la = CH_D then ADVANCE 581 else
      if la = CH_BACKSLASH then ADVANCE 286 else
      if (CH_TAB \<le> la \<and> la \<le> CH_CR) \<or> la = CH_SPACE then ADVANCE 5 else
      if (CH_0 \<le> la \<and> la \<le> CH_9) \<or> (CH_A \<le> la \<and> la \<le> CH_Z) \<or> la
        = CH_UNDERSCORE then ADVANCE 792 else
      if mozcpp_in_identifier la then ADVANCE 1152 else END_STATE)"

definition mozcpp_lex_608 :: "bool \<Rightarrow> codepoint \<Rightarrow> lex_case" where
  "mozcpp_lex_608 eof la = (Some mozcpp_sym_identifier,
      if la = CH_LF then ADVANCE 1183 else
      if la = CH_D then ADVANCE 626 else
      if la = CH_BACKSLASH then ADVANCE 286 else
      if (CH_TAB \<le> la \<and> la \<le> CH_CR) \<or> la = CH_SPACE then ADVANCE 5 else
      if (CH_0 \<le> la \<and> la \<le> CH_9) \<or> (CH_A \<le> la \<and> la \<le> CH_Z) \<or> la
        = CH_UNDERSCORE then ADVANCE 792 else
      if mozcpp_in_identifier la then ADVANCE 1152 else END_STATE)"

definition mozcpp_lex_609 :: "bool \<Rightarrow> codepoint \<Rightarrow> lex_case" where
  "mozcpp_lex_609 eof la = (Some mozcpp_sym_identifier,
      if la = CH_LF then ADVANCE 1183 else
      if la = CH_E then ADVANCE 482 else
      if la = CH_BACKSLASH then ADVANCE 286 else
      if (CH_TAB \<le> la \<and> la \<le> CH_CR) \<or> la = CH_SPACE then ADVANCE 5 else
      if (CH_0 \<le> la \<and> la \<le> CH_9) \<or> (CH_A \<le> la \<and> la \<le> CH_Z) \<or> la
        = CH_UNDERSCORE then ADVANCE 792 else
      if mozcpp_in_identifier la then ADVANCE 1152 else END_STATE)"

definition mozcpp_lex_610 :: "bool \<Rightarrow> codepoint \<Rightarrow> lex_case" where
  "mozcpp_lex_610 eof la = (Some mozcpp_sym_identifier,
      if la = CH_LF then ADVANCE 1183 else
      if la = CH_E then ADVANCE 683 else
      if la = CH_O then ADVANCE 605 else
      if la = CH_BACKSLASH then ADVANCE 286 else
      if (CH_TAB \<le> la \<and> la \<le> CH_CR) \<or> la = CH_SPACE then ADVANCE 5 else
      if (CH_0 \<le> la \<and> la \<le> CH_9) \<or> (CH_A \<le> la \<and> la \<le> CH_Z) \<or> la
        = CH_UNDERSCORE then ADVANCE 792 else
      if mozcpp_in_identifier la then ADVANCE 1152 else END_STATE)"

definition mozcpp_lex_611 :: "bool \<Rightarrow> codepoint \<Rightarrow> lex_case" where
  "mozcpp_lex_611 eof la = (Some mozcpp_sym_identifier,
      if la = CH_LF then ADVANCE 1183 else
      if la = CH_E then ADVANCE 558 else
      if la = CH_BACKSLASH then ADVANCE 286 else
      if (CH_TAB \<le> la \<and> la \<le> CH_CR) \<or> la = CH_SPACE then ADVANCE 5 else
      if (CH_0 \<le> la \<and> la \<le> CH_9) \<or> (CH_A \<le> la \<and> la \<le> CH_Z) \<or> la
        = CH_UNDERSCORE then ADVANCE 792 else
      if mozcpp_in_identifier la then ADVANCE 1152 else END_STATE)"

definition mozcpp_lex_612 :: "bool \<Rightarrow> codepoint \<Rightarrow> lex_case" where
  "mozcpp_lex_612 eof la = (Some mozcpp_sym_identifier,
      if la = CH_LF then ADVANCE 1183 else
      if la = CH_E then ADVANCE 560 else
      if la = CH_BACKSLASH then ADVANCE 286 else
      if (CH_TAB \<le> la \<and> la \<le> CH_CR) \<or> la = CH_SPACE then ADVANCE 5 else
      if (CH_0 \<le> la \<and> la \<le> CH_9) \<or> (CH_A \<le> la \<and> la \<le> CH_Z) \<or> la
        = CH_UNDERSCORE then ADVANCE 792 else
      if mozcpp_in_identifier la then ADVANCE 1152 else END_STATE)"

definition mozcpp_lex_613 :: "bool \<Rightarrow> codepoint \<Rightarrow> lex_case" where
  "mozcpp_lex_613 eof la = (Some mozcpp_sym_identifier,
      if la = CH_LF then ADVANCE 1183 else
      if la = CH_E then ADVANCE 781 else
      if la = CH_L then ADVANCE 482 else
      if la = CH_BACKSLASH then ADVANCE 286 else
      if (CH_TAB \<le> la \<and> la \<le> CH_CR) \<or> la = CH_SPACE then ADVANCE 5 else
      if (CH_0 \<le> la \<and> la \<le> CH_9) \<or> (CH_A \<le> la \<and> la \<le> CH_Z) \<or> la
        = CH_UNDERSCORE then ADVANCE 792 else
      if mozcpp_in_identifier la then ADVANCE 1152 else END_STATE)"

definition mozcpp_lex_614 :: "bool \<Rightarrow> codepoint \<Rightarrow> lex_case" where
  "mozcpp_lex_614 eof la = (Some mozcpp_sym_identifier,
      if la = CH_LF then ADVANCE 1183 else
      if la = CH_E then ADVANCE 781 else
      if la = CH_BACKSLASH then ADVANCE 286 else
      if (CH_TAB \<le> la \<and> la \<le> CH_CR) \<or> la = CH_SPACE then ADVANCE 5 else
      if (CH_0 \<le> la \<and> la \<le> CH_9) \<or> (CH_A \<le> la \<and> la \<le> CH_Z) \<or> la
        = CH_UNDERSCORE then ADVANCE 792 else
      if mozcpp_in_identifier la then ADVANCE 1152 else END_STATE)"

definition mozcpp_lex_615 :: "bool \<Rightarrow> codepoint \<Rightarrow> lex_case" where
  "mozcpp_lex_615 eof la = (Some mozcpp_sym_identifier,
      if la = CH_LF then ADVANCE 1183 else
      if la = CH_E then ADVANCE 602 else
      if la = CH_BACKSLASH then ADVANCE 286 else
      if (CH_TAB \<le> la \<and> la \<le> CH_CR) \<or> la = CH_SPACE then ADVANCE 5 else
      if (CH_0 \<le> la \<and> la \<le> CH_9) \<or> (CH_A \<le> la \<and> la \<le> CH_Z) \<or> la
        = CH_UNDERSCORE then ADVANCE 792 else
      if mozcpp_in_identifier la then ADVANCE 1152 else END_STATE)"

definition mozcpp_lex_616 :: "bool \<Rightarrow> codepoint \<Rightarrow> lex_case" where
  "mozcpp_lex_616 eof la = (Some mozcpp_sym_identifier,
      if la = CH_LF then ADVANCE 1183 else
      if la = CH_E then ADVANCE 788 else
      if la = CH_BACKSLASH then ADVANCE 286 else
      if (CH_TAB \<le> la \<and> la \<le> CH_CR) \<or> la = CH_SPACE then ADVANCE 5 else
      if (CH_0 \<le> la \<and> la \<le> CH_9) \<or> (CH_A \<le> la \<and> la \<le> CH_Z) \<or> la
        = CH_UNDERSCORE then ADVANCE 792 else
      if mozcpp_in_identifier la then ADVANCE 1152 else END_STATE)"

definition mozcpp_lex_617 :: "bool \<Rightarrow> codepoint \<Rightarrow> lex_case" where
  "mozcpp_lex_617 eof la = (Some mozcpp_sym_identifier,
      if la = CH_LF then ADVANCE 1183 else
      if la = CH_E then ADVANCE 627 else
      if la = CH_BACKSLASH then ADVANCE 286 else
      if (CH_TAB \<le> la \<and> la \<le> CH_CR) \<or> la = CH_SPACE then ADVANCE 5 else
      if (CH_0 \<le> la \<and> la \<le> CH_9) \<or> (CH_A \<le> la \<and> la \<le> CH_Z) \<or> la
        = CH_UNDERSCORE then ADVANCE 792 else
      if mozcpp_in_identifier la then ADVANCE 1152 else END_STATE)"

definition mozcpp_lex_618 :: "bool \<Rightarrow> codepoint \<Rightarrow> lex_case" where
  "mozcpp_lex_618 eof la = (Some mozcpp_sym_identifier,
      if la = CH_LF then ADVANCE 1183 else
      if la = CH_E then ADVANCE 745 else
      if la = CH_G then ADVANCE 678 else
      if la = CH_S then ADVANCE 733 else
      if la = CH_BACKSLASH then ADVANCE 286 else
      if (CH_TAB \<le> la \<and> la \<le> CH_CR) \<or> la = CH_SPACE then ADVANCE 5 else
      if (CH_0 \<le> la \<and> la \<le> CH_9) \<or> (CH_A \<le> la \<and> la \<le> CH_Z) \<or> la
        = CH_UNDERSCORE then ADVANCE 792 else
      if mozcpp_in_identifier la then ADVANCE 1152 else END_STATE)"

definition mozcpp_lex_619 :: "bool \<Rightarrow> codepoint \<Rightarrow> lex_case" where
  "mozcpp_lex_619 eof la = (Some mozcpp_sym_identifier,
      if la = CH_LF then ADVANCE 1183 else
      if la = CH_E then ADVANCE 607 else
      if la = CH_BACKSLASH then ADVANCE 286 else
      if (CH_TAB \<le> la \<and> la \<le> CH_CR) \<or> la = CH_SPACE then ADVANCE 5 else
      if (CH_0 \<le> la \<and> la \<le> CH_9) \<or> (CH_A \<le> la \<and> la \<le> CH_Z) \<or> la
        = CH_UNDERSCORE then ADVANCE 792 else
      if mozcpp_in_identifier la then ADVANCE 1152 else END_STATE)"

definition mozcpp_lex_620 :: "bool \<Rightarrow> codepoint \<Rightarrow> lex_case" where
  "mozcpp_lex_620 eof la = (Some mozcpp_sym_identifier,
      if la = CH_LF then ADVANCE 1183 else
      if la = CH_E then ADVANCE 790 else
      if la = CH_BACKSLASH then ADVANCE 286 else
      if (CH_TAB \<le> la \<and> la \<le> CH_CR) \<or> la = CH_SPACE then ADVANCE 5 else
      if (CH_0 \<le> la \<and> la \<le> CH_9) \<or> (CH_A \<le> la \<and> la \<le> CH_Z) \<or> la
        = CH_UNDERSCORE then ADVANCE 792 else
      if mozcpp_in_identifier la then ADVANCE 1152 else END_STATE)"

definition mozcpp_lex_621 :: "bool \<Rightarrow> codepoint \<Rightarrow> lex_case" where
  "mozcpp_lex_621 eof la = (Some mozcpp_sym_identifier,
      if la = CH_LF then ADVANCE 1183 else
      if la = CH_E then ADVANCE 666 else
      if la = CH_BACKSLASH then ADVANCE 286 else
      if (CH_TAB \<le> la \<and> la \<le> CH_CR) \<or> la = CH_SPACE then ADVANCE 5 else
      if (CH_0 \<le> la \<and> la \<le> CH_9) \<or> (CH_A \<le> la \<and> la \<le> CH_Z) \<or> la
        = CH_UNDERSCORE then ADVANCE 792 else
      if mozcpp_in_identifier la then ADVANCE 1152 else END_STATE)"

definition mozcpp_lex_622 :: "bool \<Rightarrow> codepoint \<Rightarrow> lex_case" where
  "mozcpp_lex_622 eof la = (Some mozcpp_sym_identifier,
      if la = CH_LF then ADVANCE 1183 else
      if la = CH_E then ADVANCE 755 else
      if la = CH_BACKSLASH then ADVANCE 286 else
      if (CH_TAB \<le> la \<and> la \<le> CH_CR) \<or> la = CH_SPACE then ADVANCE 5 else
      if (CH_0 \<le> la \<and> la \<le> CH_9) \<or> (CH_A \<le> la \<and> la \<le> CH_Z) \<or> la
        = CH_UNDERSCORE then ADVANCE 792 else
      if mozcpp_in_identifier la then ADVANCE 1152 else END_STATE)"

definition mozcpp_lex_623 :: "bool \<Rightarrow> codepoint \<Rightarrow> lex_case" where
  "mozcpp_lex_623 eof la = (Some mozcpp_sym_identifier,
      if la = CH_LF then ADVANCE 1183 else
      if la = CH_E then ADVANCE 761 else
      if la = CH_BACKSLASH then ADVANCE 286 else
      if (CH_TAB \<le> la \<and> la \<le> CH_CR) \<or> la = CH_SPACE then ADVANCE 5 else
      if (CH_0 \<le> la \<and> la \<le> CH_9) \<or> (CH_A \<le> la \<and> la \<le> CH_Z) \<or> la
        = CH_UNDERSCORE then ADVANCE 792 else
      if mozcpp_in_identifier la then ADVANCE 1152 else END_STATE)"

definition mozcpp_lex_624 :: "bool \<Rightarrow> codepoint \<Rightarrow> lex_case" where
  "mozcpp_lex_624 eof la = (Some mozcpp_sym_identifier,
      if la = CH_LF then ADVANCE 1183 else
      if la = CH_E then ADVANCE 690 else
      if la = CH_BACKSLASH then ADVANCE 286 else
      if (CH_TAB \<le> la \<and> la \<le> CH_CR) \<or> la = CH_SPACE then ADVANCE 5 else
      if (CH_0 \<le> la \<and> la \<le> CH_9) \<or> (CH_A \<le> la \<and> la \<le> CH_Z) \<or> la
        = CH_UNDERSCORE then ADVANCE 792 else
      if mozcpp_in_identifier la then ADVANCE 1152 else END_STATE)"

definition mozcpp_lex_625 :: "bool \<Rightarrow> codepoint \<Rightarrow> lex_case" where
  "mozcpp_lex_625 eof la = (Some mozcpp_sym_identifier,
      if la = CH_LF then ADVANCE 1183 else
      if la = CH_E then ADVANCE 732 else
      if la = CH_BACKSLASH then ADVANCE 286 else
      if (CH_TAB \<le> la \<and> la \<le> CH_CR) \<or> la = CH_SPACE then ADVANCE 5 else
      if (CH_0 \<le> la \<and> la \<le> CH_9) \<or> (CH_A \<le> la \<and> la \<le> CH_Z) \<or> la
        = CH_UNDERSCORE then ADVANCE 792 else
      if mozcpp_in_identifier la then ADVANCE 1152 else END_STATE)"

definition mozcpp_lex_626 :: "bool \<Rightarrow> codepoint \<Rightarrow> lex_case" where
  "mozcpp_lex_626 eof la = (Some mozcpp_sym_identifier,
      if la = CH_LF then ADVANCE 1183 else
      if la = CH_E then ADVANCE 791 else
      if la = CH_BACKSLASH then ADVANCE 286 else
      if (CH_TAB \<le> la \<and> la \<le> CH_CR) \<or> la = CH_SPACE then ADVANCE 5 else
      if (CH_0 \<le> la \<and> la \<le> CH_9) \<or> (CH_A \<le> la \<and> la \<le> CH_Z) \<or> la
        = CH_UNDERSCORE then ADVANCE 792 else
      if mozcpp_in_identifier la then ADVANCE 1152 else END_STATE)"

definition mozcpp_lex_627 :: "bool \<Rightarrow> codepoint \<Rightarrow> lex_case" where
  "mozcpp_lex_627 eof la = (Some mozcpp_sym_identifier,
      if la = CH_LF then ADVANCE 1183 else
      if la = CH_F then ADVANCE 482 else
      if la = CH_BACKSLASH then ADVANCE 286 else
      if (CH_TAB \<le> la \<and> la \<le> CH_CR) \<or> la = CH_SPACE then ADVANCE 5 else
      if (CH_0 \<le> la \<and> la \<le> CH_9) \<or> (CH_A \<le> la \<and> la \<le> CH_Z) \<or> la
        = CH_UNDERSCORE then ADVANCE 792 else
      if mozcpp_in_identifier la then ADVANCE 1152 else END_STATE)"

definition mozcpp_lex_628 :: "bool \<Rightarrow> codepoint \<Rightarrow> lex_case" where
  "mozcpp_lex_628 eof la = (Some mozcpp_sym_identifier,
      if la = CH_LF then ADVANCE 1183 else
      if la = CH_F then ADVANCE 787 else
      if la = CH_BACKSLASH then ADVANCE 286 else
      if (CH_TAB \<le> la \<and> la \<le> CH_CR) \<or> la = CH_SPACE then ADVANCE 5 else
      if (CH_0 \<le> la \<and> la \<le> CH_9) \<or> (CH_A \<le> la \<and> la \<le> CH_Z) \<or> la
        = CH_UNDERSCORE then ADVANCE 792 else
      if mozcpp_in_identifier la then ADVANCE 1152 else END_STATE)"

definition mozcpp_lex_629 :: "bool \<Rightarrow> codepoint \<Rightarrow> lex_case" where
  "mozcpp_lex_629 eof la = (Some mozcpp_sym_identifier,
      if la = CH_LF then ADVANCE 1183 else
      if la = CH_F then ADVANCE 652 else
      if la = CH_BACKSLASH then ADVANCE 286 else
      if (CH_TAB \<le> la \<and> la \<le> CH_CR) \<or> la = CH_SPACE then ADVANCE 5 else
      if (CH_0 \<le> la \<and> la \<le> CH_9) \<or> (CH_A \<le> la \<and> la \<le> CH_Z) \<or> la
        = CH_UNDERSCORE then ADVANCE 792 else
      if mozcpp_in_identifier la then ADVANCE 1152 else END_STATE)"

definition mozcpp_lex_630 :: "bool \<Rightarrow> codepoint \<Rightarrow> lex_case" where
  "mozcpp_lex_630 eof la = (Some mozcpp_sym_identifier,
      if la = CH_LF then ADVANCE 1183 else
      if la = CH_G then ADVANCE 482 else
      if la = CH_BACKSLASH then ADVANCE 286 else
      if (CH_TAB \<le> la \<and> la \<le> CH_CR) \<or> la = CH_SPACE then ADVANCE 5 else
      if (CH_0 \<le> la \<and> la \<le> CH_9) \<or> (CH_A \<le> la \<and> la \<le> CH_Z) \<or> la
        = CH_UNDERSCORE then ADVANCE 792 else
      if mozcpp_in_identifier la then ADVANCE 1152 else END_STATE)"

definition mozcpp_lex_631 :: "bool \<Rightarrow> codepoint \<Rightarrow> lex_case" where
  "mozcpp_lex_631 eof la = (Some mozcpp_sym_identifier,
      if la = CH_LF then ADVANCE 1183 else
      if la = CH_G then ADVANCE 478 else
      if la = CH_BACKSLASH then ADVANCE 286 else
      if (CH_TAB \<le> la \<and> la \<le> CH_CR) \<or> la = CH_SPACE then ADVANCE 5 else
      if (CH_0 \<le> la \<and> la \<le> CH_9) \<or> (CH_A \<le> la \<and> la \<le> CH_Z) \<or> la
        = CH_UNDERSCORE then ADVANCE 792 else
      if mozcpp_in_identifier la then ADVANCE 1152 else END_STATE)"

definition mozcpp_lex_632 :: "bool \<Rightarrow> codepoint \<Rightarrow> lex_case" where
  "mozcpp_lex_632 eof la = (Some mozcpp_sym_identifier,
      if la = CH_LF then ADVANCE 1183 else
      if la = CH_G then ADVANCE 479 else
      if la = CH_BACKSLASH then ADVANCE 286 else
      if (CH_TAB \<le> la \<and> la \<le> CH_CR) \<or> la = CH_SPACE then ADVANCE 5 else
      if (CH_0 \<le> la \<and> la \<le> CH_9) \<or> (CH_A \<le> la \<and> la \<le> CH_Z) \<or> la
        = CH_UNDERSCORE then ADVANCE 792 else
      if mozcpp_in_identifier la then ADVANCE 1152 else END_STATE)"

definition mozcpp_lex_633 :: "bool \<Rightarrow> codepoint \<Rightarrow> lex_case" where
  "mozcpp_lex_633 eof la = (Some mozcpp_sym_identifier,
      if la = CH_LF then ADVANCE 1183 else
      if la = CH_G then ADVANCE 648 else
      if la = CH_BACKSLASH then ADVANCE 286 else
      if (CH_TAB \<le> la \<and> la \<le> CH_CR) \<or> la = CH_SPACE then ADVANCE 5 else
      if (CH_0 \<le> la \<and> la \<le> CH_9) \<or> (CH_A \<le> la \<and> la \<le> CH_Z) \<or> la
        = CH_UNDERSCORE then ADVANCE 792 else
      if mozcpp_in_identifier la then ADVANCE 1152 else END_STATE)"

definition mozcpp_lex_634 :: "bool \<Rightarrow> codepoint \<Rightarrow> lex_case" where
  "mozcpp_lex_634 eof la = (Some mozcpp_sym_identifier,
      if la = CH_LF then ADVANCE 1183 else
      if la = CH_G then ADVANCE 688 else
      if la = CH_BACKSLASH then ADVANCE 286 else
      if (CH_TAB \<le> la \<and> la \<le> CH_CR) \<or> la = CH_SPACE then ADVANCE 5 else
      if (CH_0 \<le> la \<and> la \<le> CH_9) \<or> (CH_A \<le> la \<and> la \<le> CH_Z) \<or> la
        = CH_UNDERSCORE then ADVANCE 792 else
      if mozcpp_in_identifier la then ADVANCE 1152 else END_STATE)"

definition mozcpp_lex_635 :: "bool \<Rightarrow> codepoint \<Rightarrow> lex_case" where
  "mozcpp_lex_635 eof la = (Some mozcpp_sym_identifier,
      if la = CH_LF then ADVANCE 1183 else
      if la = CH_H then ADVANCE 573 else
      if la = CH_S then ADVANCE 760 else
      if la = CH_T then ADVANCE 742 else
      if la = CH_W then ADVANCE 742 else
      if la = CH_BACKSLASH then ADVANCE 286 else
      if (CH_TAB \<le> la \<and> la \<le> CH_CR) \<or> la = CH_SPACE then ADVANCE 5 else
      if (CH_0 \<le> la \<and> la \<le> CH_9) \<or> (CH_A \<le> la \<and> la \<le> CH_Z) \<or> la
        = CH_UNDERSCORE then ADVANCE 792 else
      if mozcpp_in_identifier la then ADVANCE 1152 else END_STATE)"

definition mozcpp_lex_636 :: "bool \<Rightarrow> codepoint \<Rightarrow> lex_case" where
  "mozcpp_lex_636 eof la = (Some mozcpp_sym_identifier,
      if la = CH_LF then ADVANCE 1183 else
      if la = CH_H then ADVANCE 573 else
      if la = CH_BACKSLASH then ADVANCE 286 else
      if (CH_TAB \<le> la \<and> la \<le> CH_CR) \<or> la = CH_SPACE then ADVANCE 5 else
      if (CH_0 \<le> la \<and> la \<le> CH_9) \<or> (CH_A \<le> la \<and> la \<le> CH_Z) \<or> la
        = CH_UNDERSCORE then ADVANCE 792 else
      if mozcpp_in_identifier la then ADVANCE 1152 else END_STATE)"

definition mozcpp_lex_637 :: "bool \<Rightarrow> codepoint \<Rightarrow> lex_case" where
  "mozcpp_lex_637 eof la = (Some mozcpp_sym_identifier,
      if la = CH_LF then ADVANCE 1183 else
      if la = CH_H then ADVANCE 482 else
      if la = CH_BACKSLASH then ADVANCE 286 else
      if (CH_TAB \<le> la \<and> la \<le> CH_CR) \<or> la = CH_SPACE then ADVANCE 5 else
      if (CH_0 \<le> la \<and> la \<le> CH_9) \<or> (CH_A \<le> la \<and> la \<le> CH_Z) \<or> la
        = CH_UNDERSCORE then ADVANCE 792 else
      if mozcpp_in_identifier la then ADVANCE 1152 else END_STATE)"

definition mozcpp_lex_638 :: "bool \<Rightarrow> codepoint \<Rightarrow> lex_case" where
  "mozcpp_lex_638 eof la = (Some mozcpp_sym_identifier,
      if la = CH_LF then ADVANCE 1183 else
      if la = CH_H then ADVANCE 676 else
      if la = CH_BACKSLASH then ADVANCE 286 else
      if (CH_TAB \<le> la \<and> la \<le> CH_CR) \<or> la = CH_SPACE then ADVANCE 5 else
      if (CH_0 \<le> la \<and> la \<le> CH_9) \<or> (CH_A \<le> la \<and> la \<le> CH_Z) \<or> la
        = CH_UNDERSCORE then ADVANCE 792 else
      if mozcpp_in_identifier la then ADVANCE 1152 else END_STATE)"

definition mozcpp_lex_639 :: "bool \<Rightarrow> codepoint \<Rightarrow> lex_case" where
  "mozcpp_lex_639 eof la = (Some mozcpp_sym_identifier,
      if la = CH_LF then ADVANCE 1183 else
      if la = CH_H then ADVANCE 582 else
      if la = CH_L then ADVANCE 710 else
      if la = CH_BACKSLASH then ADVANCE 286 else
      if (CH_TAB \<le> la \<and> la \<le> CH_CR) \<or> la = CH_SPACE then ADVANCE 5 else
      if (CH_0 \<le> la \<and> la \<le> CH_9) \<or> (CH_A \<le> la \<and> la \<le> CH_Z) \<or> la
        = CH_UNDERSCORE then ADVANCE 792 else
      if mozcpp_in_identifier la then ADVANCE 1152 else END_STATE)"

definition mozcpp_lex_640 :: "bool \<Rightarrow> codepoint \<Rightarrow> lex_case" where
  "mozcpp_lex_640 eof la = (Some mozcpp_sym_identifier,
      if la = CH_LF then ADVANCE 1183 else
      if la = CH_H then ADVANCE 582 else
      if la = CH_BACKSLASH then ADVANCE 286 else
      if (CH_TAB \<le> la \<and> la \<le> CH_CR) \<or> la = CH_SPACE then ADVANCE 5 else
      if (CH_0 \<le> la \<and> la \<le> CH_9) \<or> (CH_A \<le> la \<and> la \<le> CH_Z) \<or> la
        = CH_UNDERSCORE then ADVANCE 792 else
      if mozcpp_in_identifier la then ADVANCE 1152 else END_STATE)"

definition mozcpp_lex_641 :: "bool \<Rightarrow> codepoint \<Rightarrow> lex_case" where
  "mozcpp_lex_641 eof la = (Some mozcpp_sym_identifier,
      if la = CH_LF then ADVANCE 1183 else
      if la = CH_H then ADVANCE 715 else
      if la = CH_I then ADVANCE 784 else
      if la = CH_S then ADVANCE 645 else
      if la = CH_T then ADVANCE 726 else
      if la = CH_BACKSLASH then ADVANCE 286 else
      if (CH_TAB \<le> la \<and> la \<le> CH_CR) \<or> la = CH_SPACE then ADVANCE 5 else
      if (CH_0 \<le> la \<and> la \<le> CH_9) \<or> (CH_A \<le> la \<and> la \<le> CH_Z) \<or> la
        = CH_UNDERSCORE then ADVANCE 792 else
      if mozcpp_in_identifier la then ADVANCE 1152 else END_STATE)"

definition mozcpp_lex_642 :: "bool \<Rightarrow> codepoint \<Rightarrow> lex_case" where
  "mozcpp_lex_642 eof la = (Some mozcpp_sym_identifier,
      if la = CH_LF then ADVANCE 1183 else
      if la = CH_H then ADVANCE 715 else
      if la = CH_N then ADVANCE 482 else
      if la = CH_BACKSLASH then ADVANCE 286 else
      if (CH_TAB \<le> la \<and> la \<le> CH_CR) \<or> la = CH_SPACE then ADVANCE 5 else
      if (CH_0 \<le> la \<and> la \<le> CH_9) \<or> (CH_A \<le> la \<and> la \<le> CH_Z) \<or> la
        = CH_UNDERSCORE then ADVANCE 792 else
      if mozcpp_in_identifier la then ADVANCE 1152 else END_STATE)"

definition mozcpp_lex_643 :: "bool \<Rightarrow> codepoint \<Rightarrow> lex_case" where
  "mozcpp_lex_643 eof la = (Some mozcpp_sym_identifier,
      if la = CH_LF then ADVANCE 1183 else
      if la = CH_H then ADVANCE 715 else
      if la = CH_BACKSLASH then ADVANCE 286 else
      if (CH_TAB \<le> la \<and> la \<le> CH_CR) \<or> la = CH_SPACE then ADVANCE 5 else
      if (CH_0 \<le> la \<and> la \<le> CH_9) \<or> (CH_A \<le> la \<and> la \<le> CH_Z) \<or> la
        = CH_UNDERSCORE then ADVANCE 792 else
      if mozcpp_in_identifier la then ADVANCE 1152 else END_STATE)"

definition mozcpp_lex_644 :: "bool \<Rightarrow> codepoint \<Rightarrow> lex_case" where
  "mozcpp_lex_644 eof la = (Some mozcpp_sym_identifier,
      if la = CH_LF then ADVANCE 1183 else
      if la = CH_I then ADVANCE 624 else
      if la = CH_BACKSLASH then ADVANCE 286 else
      if (CH_TAB \<le> la \<and> la \<le> CH_CR) \<or> la = CH_SPACE then ADVANCE 5 else
      if (CH_0 \<le> la \<and> la \<le> CH_9) \<or> (CH_A \<le> la \<and> la \<le> CH_Z) \<or> la
        = CH_UNDERSCORE then ADVANCE 792 else
      if mozcpp_in_identifier la then ADVANCE 1152 else END_STATE)"

definition mozcpp_lex_645 :: "bool \<Rightarrow> codepoint \<Rightarrow> lex_case" where
  "mozcpp_lex_645 eof la = (Some mozcpp_sym_identifier,
      if la = CH_LF then ADVANCE 1183 else
      if la = CH_I then ADVANCE 784 else
      if la = CH_BACKSLASH then ADVANCE 286 else
      if (CH_TAB \<le> la \<and> la \<le> CH_CR) \<or> la = CH_SPACE then ADVANCE 5 else
      if (CH_0 \<le> la \<and> la \<le> CH_9) \<or> (CH_A \<le> la \<and> la \<le> CH_Z) \<or> la
        = CH_UNDERSCORE then ADVANCE 792 else
      if mozcpp_in_identifier la then ADVANCE 1152 else END_STATE)"

definition mozcpp_lex_646 :: "bool \<Rightarrow> codepoint \<Rightarrow> lex_case" where
  "mozcpp_lex_646 eof la = (Some mozcpp_sym_identifier,
      if la = CH_LF then ADVANCE 1183 else
      if la = CH_I then ADVANCE 602 else
      if la = CH_R then ADVANCE 602 else
      if la = CH_BACKSLASH then ADVANCE 286 else
      if (CH_TAB \<le> la \<and> la \<le> CH_CR) \<or> la = CH_SPACE then ADVANCE 5 else
      if (CH_0 \<le> la \<and> la \<le> CH_9) \<or> (CH_A \<le> la \<and> la \<le> CH_Z) \<or> la
        = CH_UNDERSCORE then ADVANCE 792 else
      if mozcpp_in_identifier la then ADVANCE 1152 else END_STATE)"

definition mozcpp_lex_647 :: "bool \<Rightarrow> codepoint \<Rightarrow> lex_case" where
  "mozcpp_lex_647 eof la = (Some mozcpp_sym_identifier,
      if la = CH_LF then ADVANCE 1183 else
      if la = CH_I then ADVANCE 602 else
      if la = CH_T then ADVANCE 782 else
      if la = CH_BACKSLASH then ADVANCE 286 else
      if (CH_TAB \<le> la \<and> la \<le> CH_CR) \<or> la = CH_SPACE then ADVANCE 5 else
      if (CH_0 \<le> la \<and> la \<le> CH_9) \<or> (CH_A \<le> la \<and> la \<le> CH_Z) \<or> la
        = CH_UNDERSCORE then ADVANCE 792 else
      if mozcpp_in_identifier la then ADVANCE 1152 else END_STATE)"

definition mozcpp_lex_648 :: "bool \<Rightarrow> codepoint \<Rightarrow> lex_case" where
  "mozcpp_lex_648 eof la = (Some mozcpp_sym_identifier,
      if la = CH_LF then ADVANCE 1183 else
      if la = CH_I then ADVANCE 602 else
      if la = CH_BACKSLASH then ADVANCE 286 else
      if (CH_TAB \<le> la \<and> la \<le> CH_CR) \<or> la = CH_SPACE then ADVANCE 5 else
      if (CH_0 \<le> la \<and> la \<le> CH_9) \<or> (CH_A \<le> la \<and> la \<le> CH_Z) \<or> la
        = CH_UNDERSCORE then ADVANCE 792 else
      if mozcpp_in_identifier la then ADVANCE 1152 else END_STATE)"

definition mozcpp_lex_649 :: "bool \<Rightarrow> codepoint \<Rightarrow> lex_case" where
  "mozcpp_lex_649 eof la = (Some mozcpp_sym_identifier,
      if la = CH_LF then ADVANCE 1183 else
      if la = CH_I then ADVANCE 759 else
      if la = CH_R then ADVANCE 772 else
      if la = CH_BACKSLASH then ADVANCE 286 else
      if (CH_TAB \<le> la \<and> la \<le> CH_CR) \<or> la = CH_SPACE then ADVANCE 5 else
      if (CH_0 \<le> la \<and> la \<le> CH_9) \<or> (CH_A \<le> la \<and> la \<le> CH_Z) \<or> la
        = CH_UNDERSCORE then ADVANCE 792 else
      if mozcpp_in_identifier la then ADVANCE 1152 else END_STATE)"

definition mozcpp_lex_650 :: "bool \<Rightarrow> codepoint \<Rightarrow> lex_case" where
  "mozcpp_lex_650 eof la = (Some mozcpp_sym_identifier,
      if la = CH_LF then ADVANCE 1183 else
      if la = CH_I then ADVANCE 600 else
      if la = CH_BACKSLASH then ADVANCE 286 else
      if (CH_TAB \<le> la \<and> la \<le> CH_CR) \<or> la = CH_SPACE then ADVANCE 5 else
      if (CH_0 \<le> la \<and> la \<le> CH_9) \<or> (CH_A \<le> la \<and> la \<le> CH_Z) \<or> la
        = CH_UNDERSCORE then ADVANCE 792 else
      if mozcpp_in_identifier la then ADVANCE 1152 else END_STATE)"

definition mozcpp_lex_651 :: "bool \<Rightarrow> codepoint \<Rightarrow> lex_case" where
  "mozcpp_lex_651 eof la = (Some mozcpp_sym_identifier,
      if la = CH_LF then ADVANCE 1183 else
      if la = CH_I then ADVANCE 668 else
      if la = CH_O then ADVANCE 686 else
      if la = CH_BACKSLASH then ADVANCE 286 else
      if (CH_TAB \<le> la \<and> la \<le> CH_CR) \<or> la = CH_SPACE then ADVANCE 5 else
      if (CH_0 \<le> la \<and> la \<le> CH_9) \<or> (CH_A \<le> la \<and> la \<le> CH_Z) \<or> la
        = CH_UNDERSCORE then ADVANCE 792 else
      if mozcpp_in_identifier la then ADVANCE 1152 else END_STATE)"

definition mozcpp_lex_652 :: "bool \<Rightarrow> codepoint \<Rightarrow> lex_case" where
  "mozcpp_lex_652 eof la = (Some mozcpp_sym_identifier,
      if la = CH_LF then ADVANCE 1183 else
      if la = CH_I then ADVANCE 668 else
      if la = CH_BACKSLASH then ADVANCE 286 else
      if (CH_TAB \<le> la \<and> la \<le> CH_CR) \<or> la = CH_SPACE then ADVANCE 5 else
      if (CH_0 \<le> la \<and> la \<le> CH_9) \<or> (CH_A \<le> la \<and> la \<le> CH_Z) \<or> la
        = CH_UNDERSCORE then ADVANCE 792 else
      if mozcpp_in_identifier la then ADVANCE 1152 else END_STATE)"

definition mozcpp_lex_653 :: "bool \<Rightarrow> codepoint \<Rightarrow> lex_case" where
  "mozcpp_lex_653 eof la = (Some mozcpp_sym_identifier,
      if la = CH_LF then ADVANCE 1183 else
      if la = CH_I then ADVANCE 634 else
      if la = CH_BACKSLASH then ADVANCE 286 else
      if (CH_TAB \<le> la \<and> la \<le> CH_CR) \<or> la = CH_SPACE then ADVANCE 5 else
      if (CH_0 \<le> la \<and> la \<le> CH_9) \<or> (CH_A \<le> la \<and> la \<le> CH_Z) \<or> la
        = CH_UNDERSCORE then ADVANCE 792 else
      if mozcpp_in_identifier la then ADVANCE 1152 else END_STATE)"

definition mozcpp_lex_654 :: "bool \<Rightarrow> codepoint \<Rightarrow> lex_case" where
  "mozcpp_lex_654 eof la = (Some mozcpp_sym_identifier,
      if la = CH_LF then ADVANCE 1183 else
      if la = CH_I then ADVANCE 769 else
      if la = CH_BACKSLASH then ADVANCE 286 else
      if (CH_TAB \<le> la \<and> la \<le> CH_CR) \<or> la = CH_SPACE then ADVANCE 5 else
      if (CH_0 \<le> la \<and> la \<le> CH_9) \<or> (CH_A \<le> la \<and> la \<le> CH_Z) \<or> la
        = CH_UNDERSCORE then ADVANCE 792 else
      if mozcpp_in_identifier la then ADVANCE 1152 else END_STATE)"

definition mozcpp_lex_655 :: "bool \<Rightarrow> codepoint \<Rightarrow> lex_case" where
  "mozcpp_lex_655 eof la = (Some mozcpp_sym_identifier,
      if la = CH_LF then ADVANCE 1183 else
      if la = CH_I then ADVANCE 692 else
      if la = CH_N then ADVANCE 602 else
      if la = CH_BACKSLASH then ADVANCE 286 else
      if (CH_TAB \<le> la \<and> la \<le> CH_CR) \<or> la = CH_SPACE then ADVANCE 5 else
      if (CH_0 \<le> la \<and> la \<le> CH_9) \<or> (CH_A \<le> la \<and> la \<le> CH_Z) \<or> la
        = CH_UNDERSCORE then ADVANCE 792 else
      if mozcpp_in_identifier la then ADVANCE 1152 else END_STATE)"

definition mozcpp_lex_656 :: "bool \<Rightarrow> codepoint \<Rightarrow> lex_case" where
  "mozcpp_lex_656 eof la = (Some mozcpp_sym_identifier,
      if la = CH_LF then ADVANCE 1183 else
      if la = CH_I then ADVANCE 689 else
      if la = CH_BACKSLASH then ADVANCE 286 else
      if (CH_TAB \<le> la \<and> la \<le> CH_CR) \<or> la = CH_SPACE then ADVANCE 5 else
      if (CH_0 \<le> la \<and> la \<le> CH_9) \<or> (CH_A \<le> la \<and> la \<le> CH_Z) \<or> la
        = CH_UNDERSCORE then ADVANCE 792 else
      if mozcpp_in_identifier la then ADVANCE 1152 else END_STATE)"

definition mozcpp_lex_657 :: "bool \<Rightarrow> codepoint \<Rightarrow> lex_case" where
  "mozcpp_lex_657 eof la = (Some mozcpp_sym_identifier,
      if la = CH_LF then ADVANCE 1183 else
      if la = CH_I then ADVANCE 685 else
      if la = CH_BACKSLASH then ADVANCE 286 else
      if (CH_TAB \<le> la \<and> la \<le> CH_CR) \<or> la = CH_SPACE then ADVANCE 5 else
      if (CH_0 \<le> la \<and> la \<le> CH_9) \<or> (CH_A \<le> la \<and> la \<le> CH_Z) \<or> la
        = CH_UNDERSCORE then ADVANCE 792 else
      if mozcpp_in_identifier la then ADVANCE 1152 else END_STATE)"

definition mozcpp_lex_658 :: "bool \<Rightarrow> codepoint \<Rightarrow> lex_case" where
  "mozcpp_lex_658 eof la = (Some mozcpp_sym_identifier,
      if la = CH_LF then ADVANCE 1183 else
      if la = CH_I then ADVANCE 702 else
      if la = CH_BACKSLASH then ADVANCE 286 else
      if (CH_TAB \<le> la \<and> la \<le> CH_CR) \<or> la = CH_SPACE then ADVANCE 5 else
      if (CH_0 \<le> la \<and> la \<le> CH_9) \<or> (CH_A \<le> la \<and> la \<le> CH_Z) \<or> la
        = CH_UNDERSCORE then ADVANCE 792 else
      if mozcpp_in_identifier la then ADVANCE 1152 else END_STATE)"

definition mozcpp_lex_659 :: "bool \<Rightarrow> codepoint \<Rightarrow> lex_case" where
  "mozcpp_lex_659 eof la = (Some mozcpp_sym_identifier,
      if la = CH_LF then ADVANCE 1183 else
      if la = CH_I then ADVANCE 599 else
      if la = CH_BACKSLASH then ADVANCE 286 else
      if (CH_TAB \<le> la \<and> la \<le> CH_CR) \<or> la = CH_SPACE then ADVANCE 5 else
      if (CH_0 \<le> la \<and> la \<le> CH_9) \<or> (CH_A \<le> la \<and> la \<le> CH_Z) \<or> la
        = CH_UNDERSCORE then ADVANCE 792 else
      if mozcpp_in_identifier la then ADVANCE 1152 else END_STATE)"

definition mozcpp_lex_660 :: "bool \<Rightarrow> codepoint \<Rightarrow> lex_case" where
  "mozcpp_lex_660 eof la = (Some mozcpp_sym_identifier,
      if la = CH_LF then ADVANCE 1183 else
      if la = CH_I then ADVANCE 744 else
      if la = CH_BACKSLASH then ADVANCE 286 else
      if (CH_TAB \<le> la \<and> la \<le> CH_CR) \<or> la = CH_SPACE then ADVANCE 5 else
      if (CH_0 \<le> la \<and> la \<le> CH_9) \<or> (CH_A \<le> la \<and> la \<le> CH_Z) \<or> la
        = CH_UNDERSCORE then ADVANCE 792 else
      if mozcpp_in_identifier la then ADVANCE 1152 else END_STATE)"

definition mozcpp_lex_661 :: "bool \<Rightarrow> codepoint \<Rightarrow> lex_case" where
  "mozcpp_lex_661 eof la = (Some mozcpp_sym_identifier,
      if la = CH_LF then ADVANCE 1183 else
      if la = CH_J then ADVANCE 482 else
      if la = CH_BACKSLASH then ADVANCE 286 else
      if (CH_TAB \<le> la \<and> la \<le> CH_CR) \<or> la = CH_SPACE then ADVANCE 5 else
      if (CH_0 \<le> la \<and> la \<le> CH_9) \<or> (CH_A \<le> la \<and> la \<le> CH_Z) \<or> la
        = CH_UNDERSCORE then ADVANCE 792 else
      if mozcpp_in_identifier la then ADVANCE 1152 else END_STATE)"

definition mozcpp_lex_662 :: "bool \<Rightarrow> codepoint \<Rightarrow> lex_case" where
  "mozcpp_lex_662 eof la = (Some mozcpp_sym_identifier,
      if la = CH_LF then ADVANCE 1183 else
      if la = CH_K then ADVANCE 482 else
      if la = CH_BACKSLASH then ADVANCE 286 else
      if (CH_TAB \<le> la \<and> la \<le> CH_CR) \<or> la = CH_SPACE then ADVANCE 5 else
      if (CH_0 \<le> la \<and> la \<le> CH_9) \<or> (CH_A \<le> la \<and> la \<le> CH_Z) \<or> la
        = CH_UNDERSCORE then ADVANCE 792 else
      if mozcpp_in_identifier la then ADVANCE 1152 else END_STATE)"

definition mozcpp_lex_663 :: "bool \<Rightarrow> codepoint \<Rightarrow> lex_case" where
  "mozcpp_lex_663 eof la = (Some mozcpp_sym_identifier,
      if la = CH_LF then ADVANCE 1183 else
      if la = CH_L then ADVANCE 749 else
      if la = CH_BACKSLASH then ADVANCE 286 else
      if (CH_TAB \<le> la \<and> la \<le> CH_CR) \<or> la = CH_SPACE then ADVANCE 5 else
      if (CH_0 \<le> la \<and> la \<le> CH_9) \<or> (CH_A \<le> la \<and> la \<le> CH_Z) \<or> la
        = CH_UNDERSCORE then ADVANCE 792 else
      if mozcpp_in_identifier la then ADVANCE 1152 else END_STATE)"

definition mozcpp_lex_664 :: "bool \<Rightarrow> codepoint \<Rightarrow> lex_case" where
  "mozcpp_lex_664 eof la = (Some mozcpp_sym_identifier,
      if la = CH_LF then ADVANCE 1183 else
      if la = CH_L then ADVANCE 628 else
      if la = CH_N then ADVANCE 604 else
      if la = CH_BACKSLASH then ADVANCE 286 else
      if (CH_TAB \<le> la \<and> la \<le> CH_CR) \<or> la = CH_SPACE then ADVANCE 5 else
      if (CH_0 \<le> la \<and> la \<le> CH_9) \<or> (CH_A \<le> la \<and> la \<le> CH_Z) \<or> la
        = CH_UNDERSCORE then ADVANCE 792 else
      if mozcpp_in_identifier la then ADVANCE 1152 else END_STATE)"

definition mozcpp_lex_665 :: "bool \<Rightarrow> codepoint \<Rightarrow> lex_case" where
  "mozcpp_lex_665 eof la = (Some mozcpp_sym_identifier,
      if la = CH_LF then ADVANCE 1183 else
      if la = CH_L then ADVANCE 628 else
      if la = CH_BACKSLASH then ADVANCE 286 else
      if (CH_TAB \<le> la \<and> la \<le> CH_CR) \<or> la = CH_SPACE then ADVANCE 5 else
      if (CH_0 \<le> la \<and> la \<le> CH_9) \<or> (CH_A \<le> la \<and> la \<le> CH_Z) \<or> la
        = CH_UNDERSCORE then ADVANCE 792 else
      if mozcpp_in_identifier la then ADVANCE 1152 else END_STATE)"

definition mozcpp_lex_666 :: "bool \<Rightarrow> codepoint \<Rightarrow> lex_case" where
  "mozcpp_lex_666 eof la = (Some mozcpp_sym_identifier,
      if la = CH_LF then ADVANCE 1183 else
      if la = CH_L then ADVANCE 482 else
      if la = CH_BACKSLASH then ADVANCE 286 else
      if (CH_TAB \<le> la \<and> la \<le> CH_CR) \<or> la = CH_SPACE then ADVANCE 5 else
      if (CH_0 \<le> la \<and> la \<le> CH_9) \<or> (CH_A \<le> la \<and> la \<le> CH_Z) \<or> la
        = CH_UNDERSCORE then ADVANCE 792 else
      if mozcpp_in_identifier la then ADVANCE 1152 else END_STATE)"

definition mozcpp_lex_667 :: "bool \<Rightarrow> codepoint \<Rightarrow> lex_case" where
  "mozcpp_lex_667 eof la = (Some mozcpp_sym_identifier,
      if la = CH_LF then ADVANCE 1183 else
      if la = CH_L then ADVANCE 480 else
      if la = CH_BACKSLASH then ADVANCE 286 else
      if (CH_TAB \<le> la \<and> la \<le> CH_CR) \<or> la = CH_SPACE then ADVANCE 5 else
      if (CH_0 \<le> la \<and> la \<le> CH_9) \<or> (CH_A \<le> la \<and> la \<le> CH_Z) \<or> la
        = CH_UNDERSCORE then ADVANCE 792 else
      if mozcpp_in_identifier la then ADVANCE 1152 else END_STATE)"

definition mozcpp_lex_668 :: "bool \<Rightarrow> codepoint \<Rightarrow> lex_case" where
  "mozcpp_lex_668 eof la = (Some mozcpp_sym_identifier,
      if la = CH_LF then ADVANCE 1183 else
      if la = CH_L then ADVANCE 609 else
      if la = CH_BACKSLASH then ADVANCE 286 else
      if (CH_TAB \<le> la \<and> la \<le> CH_CR) \<or> la = CH_SPACE then ADVANCE 5 else
      if (CH_0 \<le> la \<and> la \<le> CH_9) \<or> (CH_A \<le> la \<and> la \<le> CH_Z) \<or> la
        = CH_UNDERSCORE then ADVANCE 792 else
      if mozcpp_in_identifier la then ADVANCE 1152 else END_STATE)"

definition mozcpp_lex_669 :: "bool \<Rightarrow> codepoint \<Rightarrow> lex_case" where
  "mozcpp_lex_669 eof la = (Some mozcpp_sym_identifier,
      if la = CH_LF then ADVANCE 1183 else
      if la = CH_L then ADVANCE 703 else
      if la = CH_BACKSLASH then ADVANCE 286 else
      if (CH_TAB \<le> la \<and> la \<le> CH_CR) \<or> la = CH_SPACE then ADVANCE 5 else
      if (CH_0 \<le> la \<and> la \<le> CH_9) \<or> (CH_A \<le> la \<and> la \<le> CH_Z) \<or> la
        = CH_UNDERSCORE then ADVANCE 792 else
      if mozcpp_in_identifier la then ADVANCE 1152 else END_STATE)"

definition mozcpp_lex_670 :: "bool \<Rightarrow> codepoint \<Rightarrow> lex_case" where
  "mozcpp_lex_670 eof la = (Some mozcpp_sym_identifier,
      if la = CH_LF then ADVANCE 1183 else
      if la = CH_L then ADVANCE 756 else
      if la = CH_BACKSLASH then ADVANCE 286 else
      if (CH_TAB \<le> la \<and> la \<le> CH_CR) \<or> la = CH_SPACE then ADVANCE 5 else
      if (CH_0 \<le> la \<and> la \<le> CH_9) \<or> (CH_A \<le> la \<and> la \<le> CH_Z) \<or> la
        = CH_UNDERSCORE then ADVANCE 792 else
      if mozcpp_in_identifier la then ADVANCE 1152 else END_STATE)"

definition mozcpp_lex_671 :: "bool \<Rightarrow> codepoint \<Rightarrow> lex_case" where
  "mozcpp_lex_671 eof la = (Some mozcpp_sym_identifier,
      if la = CH_LF then ADVANCE 1183 else
      if la = CH_L then ADVANCE 622 else
      if la = CH_BACKSLASH then ADVANCE 286 else
      if (CH_TAB \<le> la \<and> la \<le> CH_CR) \<or> la = CH_SPACE then ADVANCE 5 else
      if (CH_0 \<le> la \<and> la \<le> CH_9) \<or> (CH_A \<le> la \<and> la \<le> CH_Z) \<or> la
        = CH_UNDERSCORE then ADVANCE 792 else
      if mozcpp_in_identifier la then ADVANCE 1152 else END_STATE)"

definition mozcpp_lex_672 :: "bool \<Rightarrow> codepoint \<Rightarrow> lex_case" where
  "mozcpp_lex_672 eof la = (Some mozcpp_sym_identifier,
      if la = CH_LF then ADVANCE 1183 else
      if la = CH_L then ADVANCE 716 else
      if la = CH_BACKSLASH then ADVANCE 286 else
      if (CH_TAB \<le> la \<and> la \<le> CH_CR) \<or> la = CH_SPACE then ADVANCE 5 else
      if (CH_0 \<le> la \<and> la \<le> CH_9) \<or> (CH_A \<le> la \<and> la \<le> CH_Z) \<or> la
        = CH_UNDERSCORE then ADVANCE 792 else
      if mozcpp_in_identifier la then ADVANCE 1152 else END_STATE)"

definition mozcpp_lex_673 :: "bool \<Rightarrow> codepoint \<Rightarrow> lex_case" where
  "mozcpp_lex_673 eof la = (Some mozcpp_sym_identifier,
      if la = CH_LF then ADVANCE 1183 else
      if la = CH_L then ADVANCE 720 else
      if la = CH_N then ADVANCE 776 else
      if la = CH_BACKSLASH then ADVANCE 286 else
      if (CH_TAB \<le> la \<and> la \<le> CH_CR) \<or> la = CH_SPACE then ADVANCE 5 else
      if (CH_0 \<le> la \<and> la \<le> CH_9) \<or> (CH_A \<le> la \<and> la \<le> CH_Z) \<or> la
        = CH_UNDERSCORE then ADVANCE 792 else
      if mozcpp_in_identifier la then ADVANCE 1152 else END_STATE)"

definition mozcpp_lex_674 :: "bool \<Rightarrow> codepoint \<Rightarrow> lex_case" where
  "mozcpp_lex_674 eof la = (Some mozcpp_sym_identifier,
      if la = CH_LF then ADVANCE 1183 else
      if la = CH_M then ADVANCE 482 else
      if la = CH_BACKSLASH then ADVANCE 286 else
      if (CH_TAB \<le> la \<and> la \<le> CH_CR) \<or> la = CH_SPACE then ADVANCE 5 else
      if (CH_0 \<le> la \<and> la \<le> CH_9) \<or> (CH_A \<le> la \<and> la \<le> CH_Z) \<or> la
        = CH_UNDERSCORE then ADVANCE 792 else
      if mozcpp_in_identifier la then ADVANCE 1152 else END_STATE)"

definition mozcpp_lex_675 :: "bool \<Rightarrow> codepoint \<Rightarrow> lex_case" where
  "mozcpp_lex_675 eof la = (Some mozcpp_sym_identifier,
      if la = CH_LF then ADVANCE 1183 else
      if la = CH_M then ADVANCE 570 else
      if la = CH_BACKSLASH then ADVANCE 286 else
      if (CH_TAB \<le> la \<and> la \<le> CH_CR) \<or> la = CH_SPACE then ADVANCE 5 else
      if (CH_0 \<le> la \<and> la \<le> CH_9) \<or> (CH_A \<le> la \<and> la \<le> CH_Z) \<or> la
        = CH_UNDERSCORE then ADVANCE 792 else
      if mozcpp_in_identifier la then ADVANCE 1152 else END_STATE)"

definition mozcpp_lex_676 :: "bool \<Rightarrow> codepoint \<Rightarrow> lex_case" where
  "mozcpp_lex_676 eof la = (Some mozcpp_sym_identifier,
      if la = CH_LF then ADVANCE 1183 else
      if la = CH_M then ADVANCE 623 else
      if la = CH_BACKSLASH then ADVANCE 286 else
      if (CH_TAB \<le> la \<and> la \<le> CH_CR) \<or> la = CH_SPACE then ADVANCE 5 else
      if (CH_0 \<le> la \<and> la \<le> CH_9) \<or> (CH_A \<le> la \<and> la \<le> CH_Z) \<or> la
        = CH_UNDERSCORE then ADVANCE 792 else
      if mozcpp_in_identifier la then ADVANCE 1152 else END_STATE)"

definition mozcpp_lex_677 :: "bool \<Rightarrow> codepoint \<Rightarrow> lex_case" where
  "mozcpp_lex_677 eof la = (Some mozcpp_sym_identifier,
      if la = CH_LF then ADVANCE 1183 else
      if la = CH_N then ADVANCE 604 else
      if la = CH_BACKSLASH then ADVANCE 286 else
      if (CH_TAB \<le> la \<and> la \<le> CH_CR) \<or> la = CH_SPACE then ADVANCE 5 else
      if (CH_0 \<le> la \<and> la \<le> CH_9) \<or> (CH_A \<le> la \<and> la \<le> CH_Z) \<or> la
        = CH_UNDERSCORE then ADVANCE 792 else
      if mozcpp_in_identifier la then ADVANCE 1152 else END_STATE)"

definition mozcpp_lex_678 :: "bool \<Rightarrow> codepoint \<Rightarrow> lex_case" where
  "mozcpp_lex_678 eof la = (Some mozcpp_sym_identifier,
      if la = CH_LF then ADVANCE 1183 else
      if la = CH_N then ADVANCE 482 else
      if la = CH_BACKSLASH then ADVANCE 286 else
      if (CH_TAB \<le> la \<and> la \<le> CH_CR) \<or> la = CH_SPACE then ADVANCE 5 else
      if (CH_0 \<le> la \<and> la \<le> CH_9) \<or> (CH_A \<le> la \<and> la \<le> CH_Z) \<or> la
        = CH_UNDERSCORE then ADVANCE 792 else
      if mozcpp_in_identifier la then ADVANCE 1152 else END_STATE)"

definition mozcpp_lex_679 :: "bool \<Rightarrow> codepoint \<Rightarrow> lex_case" where
  "mozcpp_lex_679 eof la = (Some mozcpp_sym_identifier,
      if la = CH_LF then ADVANCE 1183 else
      if la = CH_N then ADVANCE 633 else
      if la = CH_BACKSLASH then ADVANCE 286 else
      if (CH_TAB \<le> la \<and> la \<le> CH_CR) \<or> la = CH_SPACE then ADVANCE 5 else
      if (CH_0 \<le> la \<and> la \<le> CH_9) \<or> (CH_A \<le> la \<and> la \<le> CH_Z) \<or> la
        = CH_UNDERSCORE then ADVANCE 792 else
      if mozcpp_in_identifier la then ADVANCE 1152 else END_STATE)"

definition mozcpp_lex_680 :: "bool \<Rightarrow> codepoint \<Rightarrow> lex_case" where
  "mozcpp_lex_680 eof la = (Some mozcpp_sym_identifier,
      if la = CH_LF then ADVANCE 1183 else
      if la = CH_N then ADVANCE 757 else
      if la = CH_BACKSLASH then ADVANCE 286 else
      if (CH_TAB \<le> la \<and> la \<le> CH_CR) \<or> la = CH_SPACE then ADVANCE 5 else
      if (CH_0 \<le> la \<and> la \<le> CH_9) \<or> (CH_A \<le> la \<and> la \<le> CH_Z) \<or> la
        = CH_UNDERSCORE then ADVANCE 792 else
      if mozcpp_in_identifier la then ADVANCE 1152 else END_STATE)"

definition mozcpp_lex_681 :: "bool \<Rightarrow> codepoint \<Rightarrow> lex_case" where
  "mozcpp_lex_681 eof la = (Some mozcpp_sym_identifier,
      if la = CH_LF then ADVANCE 1183 else
      if la = CH_N then ADVANCE 638 else
      if la = CH_BACKSLASH then ADVANCE 286 else
      if (CH_TAB \<le> la \<and> la \<le> CH_CR) \<or> la = CH_SPACE then ADVANCE 5 else
      if (CH_0 \<le> la \<and> la \<le> CH_9) \<or> (CH_A \<le> la \<and> la \<le> CH_Z) \<or> la
        = CH_UNDERSCORE then ADVANCE 792 else
      if mozcpp_in_identifier la then ADVANCE 1152 else END_STATE)"

definition mozcpp_lex_682 :: "bool \<Rightarrow> codepoint \<Rightarrow> lex_case" where
  "mozcpp_lex_682 eof la = (Some mozcpp_sym_identifier,
      if la = CH_LF then ADVANCE 1183 else
      if la = CH_N then ADVANCE 631 else
      if la = CH_BACKSLASH then ADVANCE 286 else
      if (CH_TAB \<le> la \<and> la \<le> CH_CR) \<or> la = CH_SPACE then ADVANCE 5 else
      if (CH_0 \<le> la \<and> la \<le> CH_9) \<or> (CH_A \<le> la \<and> la \<le> CH_Z) \<or> la
        = CH_UNDERSCORE then ADVANCE 792 else
      if mozcpp_in_identifier la then ADVANCE 1152 else END_STATE)"

definition mozcpp_lex_683 :: "bool \<Rightarrow> codepoint \<Rightarrow> lex_case" where
  "mozcpp_lex_683 eof la = (Some mozcpp_sym_identifier,
      if la = CH_LF then ADVANCE 1183 else
      if la = CH_N then ADVANCE 770 else
      if la = CH_T then ADVANCE 571 else
      if la = CH_BACKSLASH then ADVANCE 286 else
      if (CH_TAB \<le> la \<and> la \<le> CH_CR) \<or> la = CH_SPACE then ADVANCE 5 else
      if (CH_0 \<le> la \<and> la \<le> CH_9) \<or> (CH_A \<le> la \<and> la \<le> CH_Z) \<or> la
        = CH_UNDERSCORE then ADVANCE 792 else
      if mozcpp_in_identifier la then ADVANCE 1152 else END_STATE)"

definition mozcpp_lex_684 :: "bool \<Rightarrow> codepoint \<Rightarrow> lex_case" where
  "mozcpp_lex_684 eof la = (Some mozcpp_sym_identifier,
      if la = CH_LF then ADVANCE 1183 else
      if la = CH_N then ADVANCE 632 else
      if la = CH_BACKSLASH then ADVANCE 286 else
      if (CH_TAB \<le> la \<and> la \<le> CH_CR) \<or> la = CH_SPACE then ADVANCE 5 else
      if (CH_0 \<le> la \<and> la \<le> CH_9) \<or> (CH_A \<le> la \<and> la \<le> CH_Z) \<or> la
        = CH_UNDERSCORE then ADVANCE 792 else
      if mozcpp_in_identifier la then ADVANCE 1152 else END_STATE)"

definition mozcpp_lex_685 :: "bool \<Rightarrow> codepoint \<Rightarrow> lex_case" where
  "mozcpp_lex_685 eof la = (Some mozcpp_sym_identifier,
      if la = CH_LF then ADVANCE 1183 else
      if la = CH_N then ADVANCE 630 else
      if la = CH_BACKSLASH then ADVANCE 286 else
      if (CH_TAB \<le> la \<and> la \<le> CH_CR) \<or> la = CH_SPACE then ADVANCE 5 else
      if (CH_0 \<le> la \<and> la \<le> CH_9) \<or> (CH_A \<le> la \<and> la \<le> CH_Z) \<or> la
        = CH_UNDERSCORE then ADVANCE 792 else
      if mozcpp_in_identifier la then ADVANCE 1152 else END_STATE)"

definition mozcpp_lex_686 :: "bool \<Rightarrow> codepoint \<Rightarrow> lex_case" where
  "mozcpp_lex_686 eof la = (Some mozcpp_sym_identifier,
      if la = CH_LF then ADVANCE 1183 else
      if la = CH_N then ADVANCE 756 else
      if la = CH_BACKSLASH then ADVANCE 286 else
      if (CH_TAB \<le> la \<and> la \<le> CH_CR) \<or> la = CH_SPACE then ADVANCE 5 else
      if (CH_0 \<le> la \<and> la \<le> CH_9) \<or> (CH_A \<le> la \<and> la \<le> CH_Z) \<or> la
        = CH_UNDERSCORE then ADVANCE 792 else
      if mozcpp_in_identifier la then ADVANCE 1152 else END_STATE)"

definition mozcpp_lex_687 :: "bool \<Rightarrow> codepoint \<Rightarrow> lex_case" where
  "mozcpp_lex_687 eof la = (Some mozcpp_sym_identifier,
      if la = CH_LF then ADVANCE 1183 else
      if la = CH_N then ADVANCE 751 else
      if la = CH_BACKSLASH then ADVANCE 286 else
      if (CH_TAB \<le> la \<and> la \<le> CH_CR) \<or> la = CH_SPACE then ADVANCE 5 else
      if (CH_0 \<le> la \<and> la \<le> CH_9) \<or> (CH_A \<le> la \<and> la \<le> CH_Z) \<or> la
        = CH_UNDERSCORE then ADVANCE 792 else
      if mozcpp_in_identifier la then ADVANCE 1152 else END_STATE)"

definition mozcpp_lex_688 :: "bool \<Rightarrow> codepoint \<Rightarrow> lex_case" where
  "mozcpp_lex_688 eof la = (Some mozcpp_sym_identifier,
      if la = CH_LF then ADVANCE 1183 else
      if la = CH_N then ADVANCE 615 else
      if la = CH_BACKSLASH then ADVANCE 286 else
      if (CH_TAB \<le> la \<and> la \<le> CH_CR) \<or> la = CH_SPACE then ADVANCE 5 else
      if (CH_0 \<le> la \<and> la \<le> CH_9) \<or> (CH_A \<le> la \<and> la \<le> CH_Z) \<or> la
        = CH_UNDERSCORE then ADVANCE 792 else
      if mozcpp_in_identifier la then ADVANCE 1152 else END_STATE)"

definition mozcpp_lex_689 :: "bool \<Rightarrow> codepoint \<Rightarrow> lex_case" where
  "mozcpp_lex_689 eof la = (Some mozcpp_sym_identifier,
      if la = CH_LF then ADVANCE 1183 else
      if la = CH_N then ADVANCE 763 else
      if la = CH_BACKSLASH then ADVANCE 286 else
      if (CH_TAB \<le> la \<and> la \<le> CH_CR) \<or> la = CH_SPACE then ADVANCE 5 else
      if (CH_0 \<le> la \<and> la \<le> CH_9) \<or> (CH_A \<le> la \<and> la \<le> CH_Z) \<or> la
        = CH_UNDERSCORE then ADVANCE 792 else
      if mozcpp_in_identifier la then ADVANCE 1152 else END_STATE)"

definition mozcpp_lex_690 :: "bool \<Rightarrow> codepoint \<Rightarrow> lex_case" where
  "mozcpp_lex_690 eof la = (Some mozcpp_sym_identifier,
      if la = CH_LF then ADVANCE 1183 else
      if la = CH_N then ADVANCE 764 else
      if la = CH_BACKSLASH then ADVANCE 286 else
      if (CH_TAB \<le> la \<and> la \<le> CH_CR) \<or> la = CH_SPACE then ADVANCE 5 else
      if (CH_0 \<le> la \<and> la \<le> CH_9) \<or> (CH_A \<le> la \<and> la \<le> CH_Z) \<or> la
        = CH_UNDERSCORE then ADVANCE 792 else
      if mozcpp_in_identifier la then ADVANCE 1152 else END_STATE)"

definition mozcpp_lex_691 :: "bool \<Rightarrow> codepoint \<Rightarrow> lex_case" where
  "mozcpp_lex_691 eof la = (Some mozcpp_sym_identifier,
      if la = CH_LF then ADVANCE 1183 else
      if la = CH_N then ADVANCE 595 else
      if la = CH_BACKSLASH then ADVANCE 286 else
      if (CH_TAB \<le> la \<and> la \<le> CH_CR) \<or> la = CH_SPACE then ADVANCE 5 else
      if (CH_0 \<le> la \<and> la \<le> CH_9) \<or> (CH_A \<le> la \<and> la \<le> CH_Z) \<or> la
        = CH_UNDERSCORE then ADVANCE 792 else
      if mozcpp_in_identifier la then ADVANCE 1152 else END_STATE)"

definition mozcpp_lex_692 :: "bool \<Rightarrow> codepoint \<Rightarrow> lex_case" where
  "mozcpp_lex_692 eof la = (Some mozcpp_sym_identifier,
      if la = CH_LF then ADVANCE 1183 else
      if la = CH_N then ADVANCE 750 else
      if la = CH_BACKSLASH then ADVANCE 286 else
      if (CH_TAB \<le> la \<and> la \<le> CH_CR) \<or> la = CH_SPACE then ADVANCE 5 else
      if (CH_0 \<le> la \<and> la \<le> CH_9) \<or> (CH_A \<le> la \<and> la \<le> CH_Z) \<or> la
        = CH_UNDERSCORE then ADVANCE 792 else
      if mozcpp_in_identifier la then ADVANCE 1152 else END_STATE)"

definition mozcpp_lex_693 :: "bool \<Rightarrow> codepoint \<Rightarrow> lex_case" where
  "mozcpp_lex_693 eof la = (Some mozcpp_sym_identifier,
      if la = CH_LF then ADVANCE 1183 else
      if la = CH_O then ADVANCE 672 else
      if la = CH_S then ADVANCE 760 else
      if la = CH_V then ADVANCE 708 else
      if la = CH_W then ADVANCE 742 else
      if la = CH_BACKSLASH then ADVANCE 286 else
      if (CH_TAB \<le> la \<and> la \<le> CH_CR) \<or> la = CH_SPACE then ADVANCE 5 else
      if (CH_0 \<le> la \<and> la \<le> CH_9) \<or> (CH_A \<le> la \<and> la \<le> CH_Z) \<or> la
        = CH_UNDERSCORE then ADVANCE 792 else
      if mozcpp_in_identifier la then ADVANCE 1152 else END_STATE)"

definition mozcpp_lex_694 :: "bool \<Rightarrow> codepoint \<Rightarrow> lex_case" where
  "mozcpp_lex_694 eof la = (Some mozcpp_sym_identifier,
      if la = CH_LF then ADVANCE 1183 else
      if la = CH_O then ADVANCE 674 else
      if la = CH_BACKSLASH then ADVANCE 286 else
      if (CH_TAB \<le> la \<and> la \<le> CH_CR) \<or> la = CH_SPACE then ADVANCE 5 else
      if (CH_0 \<le> la \<and> la \<le> CH_9) \<or> (CH_A \<le> la \<and> la \<le> CH_Z) \<or> la
        = CH_UNDERSCORE then ADVANCE 792 else
      if mozcpp_in_identifier la then ADVANCE 1152 else END_STATE)"

definition mozcpp_lex_695 :: "bool \<Rightarrow> codepoint \<Rightarrow> lex_case" where
  "mozcpp_lex_695 eof la = (Some mozcpp_sym_identifier,
      if la = CH_LF then ADVANCE 1183 else
      if la = CH_O then ADVANCE 673 else
      if la = CH_U then ADVANCE 736 else
      if la = CH_BACKSLASH then ADVANCE 286 else
      if (CH_TAB \<le> la \<and> la \<le> CH_CR) \<or> la = CH_SPACE then ADVANCE 5 else
      if (CH_0 \<le> la \<and> la \<le> CH_9) \<or> (CH_A \<le> la \<and> la \<le> CH_Z) \<or> la
        = CH_UNDERSCORE then ADVANCE 792 else
      if mozcpp_in_identifier la then ADVANCE 1152 else END_STATE)"

definition mozcpp_lex_696 :: "bool \<Rightarrow> codepoint \<Rightarrow> lex_case" where
  "mozcpp_lex_696 eof la = (Some mozcpp_sym_identifier,
      if la = CH_LF then ADVANCE 1183 else
      if la = CH_O then ADVANCE 721 else
      if la = CH_BACKSLASH then ADVANCE 286 else
      if (CH_TAB \<le> la \<and> la \<le> CH_CR) \<or> la = CH_SPACE then ADVANCE 5 else
      if (CH_0 \<le> la \<and> la \<le> CH_9) \<or> (CH_A \<le> la \<and> la \<le> CH_Z) \<or> la
        = CH_UNDERSCORE then ADVANCE 792 else
      if mozcpp_in_identifier la then ADVANCE 1152 else END_STATE)"

definition mozcpp_lex_697 :: "bool \<Rightarrow> codepoint \<Rightarrow> lex_case" where
  "mozcpp_lex_697 eof la = (Some mozcpp_sym_identifier,
      if la = CH_LF then ADVANCE 1183 else
      if la = CH_O then ADVANCE 662 else
      if la = CH_BACKSLASH then ADVANCE 286 else
      if (CH_TAB \<le> la \<and> la \<le> CH_CR) \<or> la = CH_SPACE then ADVANCE 5 else
      if (CH_0 \<le> la \<and> la \<le> CH_9) \<or> (CH_A \<le> la \<and> la \<le> CH_Z) \<or> la
        = CH_UNDERSCORE then ADVANCE 792 else
      if mozcpp_in_identifier la then ADVANCE 1152 else END_STATE)"

definition mozcpp_lex_698 :: "bool \<Rightarrow> codepoint \<Rightarrow> lex_case" where
  "mozcpp_lex_698 eof la = (Some mozcpp_sym_identifier,
      if la = CH_LF then ADVANCE 1183 else
      if la = CH_O then ADVANCE 588 else
      if la = CH_BACKSLASH then ADVANCE 286 else
      if (CH_TAB \<le> la \<and> la \<le> CH_CR) \<or> la = CH_SPACE then ADVANCE 5 else
      if (CH_0 \<le> la \<and> la \<le> CH_9) \<or> (CH_A \<le> la \<and> la \<le> CH_Z) \<or> la
        = CH_UNDERSCORE then ADVANCE 792 else
      if mozcpp_in_identifier la then ADVANCE 1152 else END_STATE)"

definition mozcpp_lex_699 :: "bool \<Rightarrow> codepoint \<Rightarrow> lex_case" where
  "mozcpp_lex_699 eof la = (Some mozcpp_sym_identifier,
      if la = CH_LF then ADVANCE 1183 else
      if la = CH_O then ADVANCE 704 else
      if la = CH_Y then ADVANCE 758 else
      if la = CH_BACKSLASH then ADVANCE 286 else
      if (CH_TAB \<le> la \<and> la \<le> CH_CR) \<or> la = CH_SPACE then ADVANCE 5 else
      if (CH_0 \<le> la \<and> la \<le> CH_9) \<or> (CH_A \<le> la \<and> la \<le> CH_Z) \<or> la
        = CH_UNDERSCORE then ADVANCE 792 else
      if mozcpp_in_identifier la then ADVANCE 1152 else END_STATE)"

definition mozcpp_lex_700 :: "bool \<Rightarrow> codepoint \<Rightarrow> lex_case" where
  "mozcpp_lex_700 eof la = (Some mozcpp_sym_identifier,
      if la = CH_LF then ADVANCE 1183 else
      if la = CH_O then ADVANCE 646 else
      if la = CH_S then ADVANCE 760 else
      if la = CH_BACKSLASH then ADVANCE 286 else
      if (CH_TAB \<le> la \<and> la \<le> CH_CR) \<or> la = CH_SPACE then ADVANCE 5 else
      if (CH_0 \<le> la \<and> la \<le> CH_9) \<or> (CH_A \<le> la \<and> la \<le> CH_Z) \<or> la
        = CH_UNDERSCORE then ADVANCE 792 else
      if mozcpp_in_identifier la then ADVANCE 1152 else END_STATE)"

definition mozcpp_lex_701 :: "bool \<Rightarrow> codepoint \<Rightarrow> lex_case" where
  "mozcpp_lex_701 eof la = (Some mozcpp_sym_identifier,
      if la = CH_LF then ADVANCE 1183 else
      if la = CH_O then ADVANCE 601 else
      if la = CH_BACKSLASH then ADVANCE 286 else
      if (CH_TAB \<le> la \<and> la \<le> CH_CR) \<or> la = CH_SPACE then ADVANCE 5 else
      if (CH_0 \<le> la \<and> la \<le> CH_9) \<or> (CH_A \<le> la \<and> la \<le> CH_Z) \<or> la
        = CH_UNDERSCORE then ADVANCE 792 else
      if mozcpp_in_identifier la then ADVANCE 1152 else END_STATE)"

definition mozcpp_lex_702 :: "bool \<Rightarrow> codepoint \<Rightarrow> lex_case" where
  "mozcpp_lex_702 eof la = (Some mozcpp_sym_identifier,
      if la = CH_LF then ADVANCE 1183 else
      if la = CH_O then ADVANCE 587 else
      if la = CH_BACKSLASH then ADVANCE 286 else
      if (CH_TAB \<le> la \<and> la \<le> CH_CR) \<or> la = CH_SPACE then ADVANCE 5 else
      if (CH_0 \<le> la \<and> la \<le> CH_9) \<or> (CH_A \<le> la \<and> la \<le> CH_Z) \<or> la
        = CH_UNDERSCORE then ADVANCE 792 else
      if mozcpp_in_identifier la then ADVANCE 1152 else END_STATE)"

definition mozcpp_lex_703 :: "bool \<Rightarrow> codepoint \<Rightarrow> lex_case" where
  "mozcpp_lex_703 eof la = (Some mozcpp_sym_identifier,
      if la = CH_LF then ADVANCE 1183 else
      if la = CH_O then ADVANCE 574 else
      if la = CH_BACKSLASH then ADVANCE 286 else
      if (CH_TAB \<le> la \<and> la \<le> CH_CR) \<or> la = CH_SPACE then ADVANCE 5 else
      if (CH_0 \<le> la \<and> la \<le> CH_9) \<or> (CH_A \<le> la \<and> la \<le> CH_Z) \<or> la
        = CH_UNDERSCORE then ADVANCE 792 else
      if mozcpp_in_identifier la then ADVANCE 1152 else END_STATE)"

definition mozcpp_lex_704 :: "bool \<Rightarrow> codepoint \<Rightarrow> lex_case" where
  "mozcpp_lex_704 eof la = (Some mozcpp_sym_identifier,
      if la = CH_LF then ADVANCE 1183 else
      if la = CH_O then ADVANCE 667 else
      if la = CH_BACKSLASH then ADVANCE 286 else
      if (CH_TAB \<le> la \<and> la \<le> CH_CR) \<or> la = CH_SPACE then ADVANCE 5 else
      if (CH_0 \<le> la \<and> la \<le> CH_9) \<or> (CH_A \<le> la \<and> la \<le> CH_Z) \<or> la
        = CH_UNDERSCORE then ADVANCE 792 else
      if mozcpp_in_identifier la then ADVANCE 1152 else END_STATE)"

definition mozcpp_lex_705 :: "bool \<Rightarrow> codepoint \<Rightarrow> lex_case" where
  "mozcpp_lex_705 eof la = (Some mozcpp_sym_identifier,
      if la = CH_LF then ADVANCE 1183 else
      if la = CH_O then ADVANCE 682 else
      if la = CH_BACKSLASH then ADVANCE 286 else
      if (CH_TAB \<le> la \<and> la \<le> CH_CR) \<or> la = CH_SPACE then ADVANCE 5 else
      if (CH_0 \<le> la \<and> la \<le> CH_9) \<or> (CH_A \<le> la \<and> la \<le> CH_Z) \<or> la
        = CH_UNDERSCORE then ADVANCE 792 else
      if mozcpp_in_identifier la then ADVANCE 1152 else END_STATE)"

definition mozcpp_lex_706 :: "bool \<Rightarrow> codepoint \<Rightarrow> lex_case" where
  "mozcpp_lex_706 eof la = (Some mozcpp_sym_identifier,
      if la = CH_LF then ADVANCE 1183 else
      if la = CH_O then ADVANCE 729 else
      if la = CH_BACKSLASH then ADVANCE 286 else
      if (CH_TAB \<le> la \<and> la \<le> CH_CR) \<or> la = CH_SPACE then ADVANCE 5 else
      if (CH_0 \<le> la \<and> la \<le> CH_9) \<or> (CH_A \<le> la \<and> la \<le> CH_Z) \<or> la
        = CH_UNDERSCORE then ADVANCE 792 else
      if mozcpp_in_identifier la then ADVANCE 1152 else END_STATE)"

definition mozcpp_lex_707 :: "bool \<Rightarrow> codepoint \<Rightarrow> lex_case" where
  "mozcpp_lex_707 eof la = (Some mozcpp_sym_identifier,
      if la = CH_LF then ADVANCE 1183 else
      if la = CH_O then ADVANCE 726 else
      if la = CH_BACKSLASH then ADVANCE 286 else
      if (CH_TAB \<le> la \<and> la \<le> CH_CR) \<or> la = CH_SPACE then ADVANCE 5 else
      if (CH_0 \<le> la \<and> la \<le> CH_9) \<or> (CH_A \<le> la \<and> la \<le> CH_Z) \<or> la
        = CH_UNDERSCORE then ADVANCE 792 else
      if mozcpp_in_identifier la then ADVANCE 1152 else END_STATE)"

definition mozcpp_lex_708 :: "bool \<Rightarrow> codepoint \<Rightarrow> lex_case" where
  "mozcpp_lex_708 eof la = (Some mozcpp_sym_identifier,
      if la = CH_LF then ADVANCE 1183 else
      if la = CH_O then ADVANCE 648 else
      if la = CH_BACKSLASH then ADVANCE 286 else
      if (CH_TAB \<le> la \<and> la \<le> CH_CR) \<or> la = CH_SPACE then ADVANCE 5 else
      if (CH_0 \<le> la \<and> la \<le> CH_9) \<or> (CH_A \<le> la \<and> la \<le> CH_Z) \<or> la
        = CH_UNDERSCORE then ADVANCE 792 else
      if mozcpp_in_identifier la then ADVANCE 1152 else END_STATE)"

definition mozcpp_lex_709 :: "bool \<Rightarrow> codepoint \<Rightarrow> lex_case" where
  "mozcpp_lex_709 eof la = (Some mozcpp_sym_identifier,
      if la = CH_LF then ADVANCE 1183 else
      if la = CH_O then ADVANCE 731 else
      if la = CH_BACKSLASH then ADVANCE 286 else
      if (CH_TAB \<le> la \<and> la \<le> CH_CR) \<or> la = CH_SPACE then ADVANCE 5 else
      if (CH_0 \<le> la \<and> la \<le> CH_9) \<or> (CH_A \<le> la \<and> la \<le> CH_Z) \<or> la
        = CH_UNDERSCORE then ADVANCE 792 else
      if mozcpp_in_identifier la then ADVANCE 1152 else END_STATE)"

definition mozcpp_lex_710 :: "bool \<Rightarrow> codepoint \<Rightarrow> lex_case" where
  "mozcpp_lex_710 eof la = (Some mozcpp_sym_identifier,
      if la = CH_LF then ADVANCE 1183 else
      if la = CH_O then ADVANCE 594 else
      if la = CH_BACKSLASH then ADVANCE 286 else
      if (CH_TAB \<le> la \<and> la \<le> CH_CR) \<or> la = CH_SPACE then ADVANCE 5 else
      if (CH_0 \<le> la \<and> la \<le> CH_9) \<or> (CH_A \<le> la \<and> la \<le> CH_Z) \<or> la
        = CH_UNDERSCORE then ADVANCE 792 else
      if mozcpp_in_identifier la then ADVANCE 1152 else END_STATE)"

definition mozcpp_lex_711 :: "bool \<Rightarrow> codepoint \<Rightarrow> lex_case" where
  "mozcpp_lex_711 eof la = (Some mozcpp_sym_identifier,
      if la = CH_LF then ADVANCE 1183 else
      if la = CH_O then ADVANCE 608 else
      if la = CH_BACKSLASH then ADVANCE 286 else
      if (CH_TAB \<le> la \<and> la \<le> CH_CR) \<or> la = CH_SPACE then ADVANCE 5 else
      if (CH_0 \<le> la \<and> la \<le> CH_9) \<or> (CH_A \<le> la \<and> la \<le> CH_Z) \<or> la
        = CH_UNDERSCORE then ADVANCE 792 else
      if mozcpp_in_identifier la then ADVANCE 1152 else END_STATE)"

definition mozcpp_lex_712 :: "bool \<Rightarrow> codepoint \<Rightarrow> lex_case" where
  "mozcpp_lex_712 eof la = (Some mozcpp_sym_identifier,
      if la = CH_LF then ADVANCE 1183 else
      if la = CH_O then ADVANCE 678 else
      if la = CH_BACKSLASH then ADVANCE 286 else
      if (CH_TAB \<le> la \<and> la \<le> CH_CR) \<or> la = CH_SPACE then ADVANCE 5 else
      if (CH_0 \<le> la \<and> la \<le> CH_9) \<or> (CH_A \<le> la \<and> la \<le> CH_Z) \<or> la
        = CH_UNDERSCORE then ADVANCE 792 else
      if mozcpp_in_identifier la then ADVANCE 1152 else END_STATE)"

definition mozcpp_lex_713 :: "bool \<Rightarrow> codepoint \<Rightarrow> lex_case" where
  "mozcpp_lex_713 eof la = (Some mozcpp_sym_identifier,
      if la = CH_LF then ADVANCE 1183 else
      if la = CH_O then ADVANCE 666 else
      if la = CH_BACKSLASH then ADVANCE 286 else
      if (CH_TAB \<le> la \<and> la \<le> CH_CR) \<or> la = CH_SPACE then ADVANCE 5 else
      if (CH_0 \<le> la \<and> la \<le> CH_9) \<or> (CH_A \<le> la \<and> la \<le> CH_Z) \<or> la
        = CH_UNDERSCORE then ADVANCE 792 else
      if mozcpp_in_identifier la then ADVANCE 1152 else END_STATE)"

definition mozcpp_lex_714 :: "bool \<Rightarrow> codepoint \<Rightarrow> lex_case" where
  "mozcpp_lex_714 eof la = (Some mozcpp_sym_identifier,
      if la = CH_LF then ADVANCE 1183 else
      if la = CH_O then ADVANCE 684 else
      if la = CH_BACKSLASH then ADVANCE 286 else
      if (CH_TAB \<le> la \<and> la \<le> CH_CR) \<or> la = CH_SPACE then ADVANCE 5 else
      if (CH_0 \<le> la \<and> la \<le> CH_9) \<or> (CH_A \<le> la \<and> la \<le> CH_Z) \<or> la
        = CH_UNDERSCORE then ADVANCE 792 else
      if mozcpp_in_identifier la then ADVANCE 1152 else END_STATE)"

definition mozcpp_lex_715 :: "bool \<Rightarrow> codepoint \<Rightarrow> lex_case" where
  "mozcpp_lex_715 eof la = (Some mozcpp_sym_identifier,
      if la = CH_LF then ADVANCE 1183 else
      if la = CH_O then ADVANCE 734 else
      if la = CH_BACKSLASH then ADVANCE 286 else
      if (CH_TAB \<le> la \<and> la \<le> CH_CR) \<or> la = CH_SPACE then ADVANCE 5 else
      if (CH_0 \<le> la \<and> la \<le> CH_9) \<or> (CH_A \<le> la \<and> la \<le> CH_Z) \<or> la
        = CH_UNDERSCORE then ADVANCE 792 else
      if mozcpp_in_identifier la then ADVANCE 1152 else END_STATE)"

definition mozcpp_lex_716 :: "bool \<Rightarrow> codepoint \<Rightarrow> lex_case" where
  "mozcpp_lex_716 eof la = (Some mozcpp_sym_identifier,
      if la = CH_LF then ADVANCE 1183 else
      if la = CH_O then ADVANCE 738 else
      if la = CH_BACKSLASH then ADVANCE 286 else
      if (CH_TAB \<le> la \<and> la \<le> CH_CR) \<or> la = CH_SPACE then ADVANCE 5 else
      if (CH_0 \<le> la \<and> la \<le> CH_9) \<or> (CH_A \<le> la \<and> la \<le> CH_Z) \<or> la
        = CH_UNDERSCORE then ADVANCE 792 else
      if mozcpp_in_identifier la then ADVANCE 1152 else END_STATE)"

definition mozcpp_lex_717 :: "bool \<Rightarrow> codepoint \<Rightarrow> lex_case" where
  "mozcpp_lex_717 eof la = (Some mozcpp_sym_identifier,
      if la = CH_LF then ADVANCE 1183 else
      if la = CH_O then ADVANCE 697 else
      if la = CH_BACKSLASH then ADVANCE 286 else
      if (CH_TAB \<le> la \<and> la \<le> CH_CR) \<or> la = CH_SPACE then ADVANCE 5 else
      if (CH_0 \<le> la \<and> la \<le> CH_9) \<or> (CH_A \<le> la \<and> la \<le> CH_Z) \<or> la
        = CH_UNDERSCORE then ADVANCE 792 else
      if mozcpp_in_identifier la then ADVANCE 1152 else END_STATE)"

definition mozcpp_lex_718 :: "bool \<Rightarrow> codepoint \<Rightarrow> lex_case" where
  "mozcpp_lex_718 eof la = (Some mozcpp_sym_identifier,
      if la = CH_LF then ADVANCE 1183 else
      if la = CH_O then ADVANCE 685 else
      if la = CH_BACKSLASH then ADVANCE 286 else
      if (CH_TAB \<le> la \<and> la \<le> CH_CR) \<or> la = CH_SPACE then ADVANCE 5 else
      if (CH_0 \<le> la \<and> la \<le> CH_9) \<or> (CH_A \<le> la \<and> la \<le> CH_Z) \<or> la
        = CH_UNDERSCORE then ADVANCE 792 else
      if mozcpp_in_identifier la then ADVANCE 1152 else END_STATE)"

definition mozcpp_lex_719 :: "bool \<Rightarrow> codepoint \<Rightarrow> lex_case" where
  "mozcpp_lex_719 eof la = (Some mozcpp_sym_identifier,
      if la = CH_LF then ADVANCE 1183 else
      if la = CH_O then ADVANCE 713 else
      if la = CH_Y then ADVANCE 758 else
      if la = CH_BACKSLASH then ADVANCE 286 else
      if (CH_TAB \<le> la \<and> la \<le> CH_CR) \<or> la = CH_SPACE then ADVANCE 5 else
      if (CH_0 \<le> la \<and> la \<le> CH_9) \<or> (CH_A \<le> la \<and> la \<le> CH_Z) \<or> la
        = CH_UNDERSCORE then ADVANCE 792 else
      if mozcpp_in_identifier la then ADVANCE 1152 else END_STATE)"

definition mozcpp_lex_720 :: "bool \<Rightarrow> codepoint \<Rightarrow> lex_case" where
  "mozcpp_lex_720 eof la = (Some mozcpp_sym_identifier,
      if la = CH_LF then ADVANCE 1183 else
      if la = CH_O then ADVANCE 737 else
      if la = CH_BACKSLASH then ADVANCE 286 else
      if (CH_TAB \<le> la \<and> la \<le> CH_CR) \<or> la = CH_SPACE then ADVANCE 5 else
      if (CH_0 \<le> la \<and> la \<le> CH_9) \<or> (CH_A \<le> la \<and> la \<le> CH_Z) \<or> la
        = CH_UNDERSCORE then ADVANCE 792 else
      if mozcpp_in_identifier la then ADVANCE 1152 else END_STATE)"

definition mozcpp_lex_721 :: "bool \<Rightarrow> codepoint \<Rightarrow> lex_case" where
  "mozcpp_lex_721 eof la = (Some mozcpp_sym_identifier,
      if la = CH_LF then ADVANCE 1183 else
      if la = CH_P then ADVANCE 482 else
      if la = CH_BACKSLASH then ADVANCE 286 else
      if (CH_TAB \<le> la \<and> la \<le> CH_CR) \<or> la = CH_SPACE then ADVANCE 5 else
      if (CH_0 \<le> la \<and> la \<le> CH_9) \<or> (CH_A \<le> la \<and> la \<le> CH_Z) \<or> la
        = CH_UNDERSCORE then ADVANCE 792 else
      if mozcpp_in_identifier la then ADVANCE 1152 else END_STATE)"

definition mozcpp_lex_722 :: "bool \<Rightarrow> codepoint \<Rightarrow> lex_case" where
  "mozcpp_lex_722 eof la = (Some mozcpp_sym_identifier,
      if la = CH_LF then ADVANCE 1183 else
      if la = CH_P then ADVANCE 609 else
      if la = CH_BACKSLASH then ADVANCE 286 else
      if (CH_TAB \<le> la \<and> la \<le> CH_CR) \<or> la = CH_SPACE then ADVANCE 5 else
      if (CH_0 \<le> la \<and> la \<le> CH_9) \<or> (CH_A \<le> la \<and> la \<le> CH_Z) \<or> la
        = CH_UNDERSCORE then ADVANCE 792 else
      if mozcpp_in_identifier la then ADVANCE 1152 else END_STATE)"

definition mozcpp_lex_723 :: "bool \<Rightarrow> codepoint \<Rightarrow> lex_case" where
  "mozcpp_lex_723 eof la = (Some mozcpp_sym_identifier,
      if la = CH_LF then ADVANCE 1183 else
      if la = CH_P then ADVANCE 760 else
      if la = CH_BACKSLASH then ADVANCE 286 else
      if (CH_TAB \<le> la \<and> la \<le> CH_CR) \<or> la = CH_SPACE then ADVANCE 5 else
      if (CH_0 \<le> la \<and> la \<le> CH_9) \<or> (CH_A \<le> la \<and> la \<le> CH_Z) \<or> la
        = CH_UNDERSCORE then ADVANCE 792 else
      if mozcpp_in_identifier la then ADVANCE 1152 else END_STATE)"

definition mozcpp_lex_724 :: "bool \<Rightarrow> codepoint \<Rightarrow> lex_case" where
  "mozcpp_lex_724 eof la = (Some mozcpp_sym_identifier,
      if la = CH_LF then ADVANCE 1183 else
      if la = CH_P then ADVANCE 648 else
      if la = CH_BACKSLASH then ADVANCE 286 else
      if (CH_TAB \<le> la \<and> la \<le> CH_CR) \<or> la = CH_SPACE then ADVANCE 5 else
      if (CH_0 \<le> la \<and> la \<le> CH_9) \<or> (CH_A \<le> la \<and> la \<le> CH_Z) \<or> la
        = CH_UNDERSCORE then ADVANCE 792 else
      if mozcpp_in_identifier la then ADVANCE 1152 else END_STATE)"

definition mozcpp_lex_725 :: "bool \<Rightarrow> codepoint \<Rightarrow> lex_case" where
  "mozcpp_lex_725 eof la = (Some mozcpp_sym_identifier,
      if la = CH_LF then ADVANCE 1183 else
      if la = CH_P then ADVANCE 585 else
      if la = CH_BACKSLASH then ADVANCE 286 else
      if (CH_TAB \<le> la \<and> la \<le> CH_CR) \<or> la = CH_SPACE then ADVANCE 5 else
      if (CH_0 \<le> la \<and> la \<le> CH_9) \<or> (CH_A \<le> la \<and> la \<le> CH_Z) \<or> la
        = CH_UNDERSCORE then ADVANCE 792 else
      if mozcpp_in_identifier la then ADVANCE 1152 else END_STATE)"

definition mozcpp_lex_726 :: "bool \<Rightarrow> codepoint \<Rightarrow> lex_case" where
  "mozcpp_lex_726 eof la = (Some mozcpp_sym_identifier,
      if la = CH_LF then ADVANCE 1183 else
      if la = CH_R then ADVANCE 482 else
      if la = CH_BACKSLASH then ADVANCE 286 else
      if (CH_TAB \<le> la \<and> la \<le> CH_CR) \<or> la = CH_SPACE then ADVANCE 5 else
      if (CH_0 \<le> la \<and> la \<le> CH_9) \<or> (CH_A \<le> la \<and> la \<le> CH_Z) \<or> la
        = CH_UNDERSCORE then ADVANCE 792 else
      if mozcpp_in_identifier la then ADVANCE 1152 else END_STATE)"

definition mozcpp_lex_727 :: "bool \<Rightarrow> codepoint \<Rightarrow> lex_case" where
  "mozcpp_lex_727 eof la = (Some mozcpp_sym_identifier,
      if la = CH_LF then ADVANCE 1183 else
      if la = CH_R then ADVANCE 777 else
      if la = CH_BACKSLASH then ADVANCE 286 else
      if (CH_TAB \<le> la \<and> la \<le> CH_CR) \<or> la = CH_SPACE then ADVANCE 5 else
      if (CH_0 \<le> la \<and> la \<le> CH_9) \<or> (CH_A \<le> la \<and> la \<le> CH_Z) \<or> la
        = CH_UNDERSCORE then ADVANCE 792 else
      if mozcpp_in_identifier la then ADVANCE 1152 else END_STATE)"

definition mozcpp_lex_728 :: "bool \<Rightarrow> codepoint \<Rightarrow> lex_case" where
  "mozcpp_lex_728 eof la = (Some mozcpp_sym_identifier,
      if la = CH_LF then ADVANCE 1183 else
      if la = CH_R then ADVANCE 781 else
      if la = CH_BACKSLASH then ADVANCE 286 else
      if (CH_TAB \<le> la \<and> la \<le> CH_CR) \<or> la = CH_SPACE then ADVANCE 5 else
      if (CH_0 \<le> la \<and> la \<le> CH_9) \<or> (CH_A \<le> la \<and> la \<le> CH_Z) \<or> la
        = CH_UNDERSCORE then ADVANCE 792 else
      if mozcpp_in_identifier la then ADVANCE 1152 else END_STATE)"

definition mozcpp_lex_729 :: "bool \<Rightarrow> codepoint \<Rightarrow> lex_case" where
  "mozcpp_lex_729 eof la = (Some mozcpp_sym_identifier,
      if la = CH_LF then ADVANCE 1183 else
      if la = CH_R then ADVANCE 602 else
      if la = CH_BACKSLASH then ADVANCE 286 else
      if (CH_TAB \<le> la \<and> la \<le> CH_CR) \<or> la = CH_SPACE then ADVANCE 5 else
      if (CH_0 \<le> la \<and> la \<le> CH_9) \<or> (CH_A \<le> la \<and> la \<le> CH_Z) \<or> la
        = CH_UNDERSCORE then ADVANCE 792 else
      if mozcpp_in_identifier la then ADVANCE 1152 else END_STATE)"

definition mozcpp_lex_730 :: "bool \<Rightarrow> codepoint \<Rightarrow> lex_case" where
  "mozcpp_lex_730 eof la = (Some mozcpp_sym_identifier,
      if la = CH_LF then ADVANCE 1183 else
      if la = CH_R then ADVANCE 724 else
      if la = CH_BACKSLASH then ADVANCE 286 else
      if (CH_TAB \<le> la \<and> la \<le> CH_CR) \<or> la = CH_SPACE then ADVANCE 5 else
      if (CH_0 \<le> la \<and> la \<le> CH_9) \<or> (CH_A \<le> la \<and> la \<le> CH_Z) \<or> la
        = CH_UNDERSCORE then ADVANCE 792 else
      if mozcpp_in_identifier la then ADVANCE 1152 else END_STATE)"

definition mozcpp_lex_731 :: "bool \<Rightarrow> codepoint \<Rightarrow> lex_case" where
  "mozcpp_lex_731 eof la = (Some mozcpp_sym_identifier,
      if la = CH_LF then ADVANCE 1183 else
      if la = CH_R then ADVANCE 603 else
      if la = CH_BACKSLASH then ADVANCE 286 else
      if (CH_TAB \<le> la \<and> la \<le> CH_CR) \<or> la = CH_SPACE then ADVANCE 5 else
      if (CH_0 \<le> la \<and> la \<le> CH_9) \<or> (CH_A \<le> la \<and> la \<le> CH_Z) \<or> la
        = CH_UNDERSCORE then ADVANCE 792 else
      if mozcpp_in_identifier la then ADVANCE 1152 else END_STATE)"

definition mozcpp_lex_732 :: "bool \<Rightarrow> codepoint \<Rightarrow> lex_case" where
  "mozcpp_lex_732 eof la = (Some mozcpp_sym_identifier,
      if la = CH_LF then ADVANCE 1183 else
      if la = CH_R then ADVANCE 786 else
      if la = CH_BACKSLASH then ADVANCE 286 else
      if (CH_TAB \<le> la \<and> la \<le> CH_CR) \<or> la = CH_SPACE then ADVANCE 5 else
      if (CH_0 \<le> la \<and> la \<le> CH_9) \<or> (CH_A \<le> la \<and> la \<le> CH_Z) \<or> la
        = CH_UNDERSCORE then ADVANCE 792 else
      if mozcpp_in_identifier la then ADVANCE 1152 else END_STATE)"

definition mozcpp_lex_733 :: "bool \<Rightarrow> codepoint \<Rightarrow> lex_case" where
  "mozcpp_lex_733 eof la = (Some mozcpp_sym_identifier,
      if la = CH_LF then ADVANCE 1183 else
      if la = CH_R then ADVANCE 593 else
      if la = CH_BACKSLASH then ADVANCE 286 else
      if (CH_TAB \<le> la \<and> la \<le> CH_CR) \<or> la = CH_SPACE then ADVANCE 5 else
      if (CH_0 \<le> la \<and> la \<le> CH_9) \<or> (CH_A \<le> la \<and> la \<le> CH_Z) \<or> la
        = CH_UNDERSCORE then ADVANCE 792 else
      if mozcpp_in_identifier la then ADVANCE 1152 else END_STATE)"

definition mozcpp_lex_734 :: "bool \<Rightarrow> codepoint \<Rightarrow> lex_case" where
  "mozcpp_lex_734 eof la = (Some mozcpp_sym_identifier,
      if la = CH_LF then ADVANCE 1183 else
      if la = CH_R then ADVANCE 756 else
      if la = CH_BACKSLASH then ADVANCE 286 else
      if (CH_TAB \<le> la \<and> la \<le> CH_CR) \<or> la = CH_SPACE then ADVANCE 5 else
      if (CH_0 \<le> la \<and> la \<le> CH_9) \<or> (CH_A \<le> la \<and> la \<le> CH_Z) \<or> la
        = CH_UNDERSCORE then ADVANCE 792 else
      if mozcpp_in_identifier la then ADVANCE 1152 else END_STATE)"

definition mozcpp_lex_735 :: "bool \<Rightarrow> codepoint \<Rightarrow> lex_case" where
  "mozcpp_lex_735 eof la = (Some mozcpp_sym_identifier,
      if la = CH_LF then ADVANCE 1183 else
      if la = CH_R then ADVANCE 568 else
      if la = CH_BACKSLASH then ADVANCE 286 else
      if (CH_TAB \<le> la \<and> la \<le> CH_CR) \<or> la = CH_SPACE then ADVANCE 5 else
      if (CH_0 \<le> la \<and> la \<le> CH_9) \<or> (CH_A \<le> la \<and> la \<le> CH_Z) \<or> la
        = CH_UNDERSCORE then ADVANCE 792 else
      if mozcpp_in_identifier la then ADVANCE 1152 else END_STATE)"

definition mozcpp_lex_736 :: "bool \<Rightarrow> codepoint \<Rightarrow> lex_case" where
  "mozcpp_lex_736 eof la = (Some mozcpp_sym_identifier,
      if la = CH_LF then ADVANCE 1183 else
      if la = CH_R then ADVANCE 754 else
      if la = CH_BACKSLASH then ADVANCE 286 else
      if (CH_TAB \<le> la \<and> la \<le> CH_CR) \<or> la = CH_SPACE then ADVANCE 5 else
      if (CH_0 \<le> la \<and> la \<le> CH_9) \<or> (CH_A \<le> la \<and> la \<le> CH_Z) \<or> la
        = CH_UNDERSCORE then ADVANCE 792 else
      if mozcpp_in_identifier la then ADVANCE 1152 else END_STATE)"

definition mozcpp_lex_737 :: "bool \<Rightarrow> codepoint \<Rightarrow> lex_case" where
  "mozcpp_lex_737 eof la = (Some mozcpp_sym_identifier,
      if la = CH_LF then ADVANCE 1183 else
      if la = CH_R then ADVANCE 746 else
      if la = CH_BACKSLASH then ADVANCE 286 else
      if (CH_TAB \<le> la \<and> la \<le> CH_CR) \<or> la = CH_SPACE then ADVANCE 5 else
      if (CH_0 \<le> la \<and> la \<le> CH_9) \<or> (CH_A \<le> la \<and> la \<le> CH_Z) \<or> la
        = CH_UNDERSCORE then ADVANCE 792 else
      if mozcpp_in_identifier la then ADVANCE 1152 else END_STATE)"

definition mozcpp_lex_738 :: "bool \<Rightarrow> codepoint \<Rightarrow> lex_case" where
  "mozcpp_lex_738 eof la = (Some mozcpp_sym_identifier,
      if la = CH_LF then ADVANCE 1183 else
      if la = CH_R then ADVANCE 739 else
      if la = CH_BACKSLASH then ADVANCE 286 else
      if (CH_TAB \<le> la \<and> la \<le> CH_CR) \<or> la = CH_SPACE then ADVANCE 5 else
      if (CH_0 \<le> la \<and> la \<le> CH_9) \<or> (CH_A \<le> la \<and> la \<le> CH_Z) \<or> la
        = CH_UNDERSCORE then ADVANCE 792 else
      if mozcpp_in_identifier la then ADVANCE 1152 else END_STATE)"

definition mozcpp_lex_739 :: "bool \<Rightarrow> codepoint \<Rightarrow> lex_case" where
  "mozcpp_lex_739 eof la = (Some mozcpp_sym_identifier,
      if la = CH_LF then ADVANCE 1183 else
      if la = CH_R then ADVANCE 617 else
      if la = CH_BACKSLASH then ADVANCE 286 else
      if (CH_TAB \<le> la \<and> la \<le> CH_CR) \<or> la = CH_SPACE then ADVANCE 5 else
      if (CH_0 \<le> la \<and> la \<le> CH_9) \<or> (CH_A \<le> la \<and> la \<le> CH_Z) \<or> la
        = CH_UNDERSCORE then ADVANCE 792 else
      if mozcpp_in_identifier la then ADVANCE 1152 else END_STATE)"

definition mozcpp_lex_740 :: "bool \<Rightarrow> codepoint \<Rightarrow> lex_case" where
  "mozcpp_lex_740 eof la = (Some mozcpp_sym_identifier,
      if la = CH_LF then ADVANCE 1183 else
      if la = CH_R then ADVANCE 657 else
      if la = CH_BACKSLASH then ADVANCE 286 else
      if (CH_TAB \<le> la \<and> la \<le> CH_CR) \<or> la = CH_SPACE then ADVANCE 5 else
      if (CH_0 \<le> la \<and> la \<le> CH_9) \<or> (CH_A \<le> la \<and> la \<le> CH_Z) \<or> la
        = CH_UNDERSCORE then ADVANCE 792 else
      if mozcpp_in_identifier la then ADVANCE 1152 else END_STATE)"

definition mozcpp_lex_741 :: "bool \<Rightarrow> codepoint \<Rightarrow> lex_case" where
  "mozcpp_lex_741 eof la = (Some mozcpp_sym_identifier,
      if la = CH_LF then ADVANCE 1183 else
      if la = CH_S then ADVANCE 662 else
      if la = CH_BACKSLASH then ADVANCE 286 else
      if (CH_TAB \<le> la \<and> la \<le> CH_CR) \<or> la = CH_SPACE then ADVANCE 5 else
      if (CH_0 \<le> la \<and> la \<le> CH_9) \<or> (CH_A \<le> la \<and> la \<le> CH_Z) \<or> la
        = CH_UNDERSCORE then ADVANCE 792 else
      if mozcpp_in_identifier la then ADVANCE 1152 else END_STATE)"

definition mozcpp_lex_742 :: "bool \<Rightarrow> codepoint \<Rightarrow> lex_case" where
  "mozcpp_lex_742 eof la = (Some mozcpp_sym_identifier,
      if la = CH_LF then ADVANCE 1183 else
      if la = CH_S then ADVANCE 760 else
      if la = CH_BACKSLASH then ADVANCE 286 else
      if (CH_TAB \<le> la \<and> la \<le> CH_CR) \<or> la = CH_SPACE then ADVANCE 5 else
      if (CH_0 \<le> la \<and> la \<le> CH_9) \<or> (CH_A \<le> la \<and> la \<le> CH_Z) \<or> la
        = CH_UNDERSCORE then ADVANCE 792 else
      if mozcpp_in_identifier la then ADVANCE 1152 else END_STATE)"

definition mozcpp_lex_743 :: "bool \<Rightarrow> codepoint \<Rightarrow> lex_case" where
  "mozcpp_lex_743 eof la = (Some mozcpp_sym_identifier,
      if la = CH_LF then ADVANCE 1183 else
      if la = CH_S then ADVANCE 637 else
      if la = CH_BACKSLASH then ADVANCE 286 else
      if (CH_TAB \<le> la \<and> la \<le> CH_CR) \<or> la = CH_SPACE then ADVANCE 5 else
      if (CH_0 \<le> la \<and> la \<le> CH_9) \<or> (CH_A \<le> la \<and> la \<le> CH_Z) \<or> la
        = CH_UNDERSCORE then ADVANCE 792 else
      if mozcpp_in_identifier la then ADVANCE 1152 else END_STATE)"

definition mozcpp_lex_744 :: "bool \<Rightarrow> codepoint \<Rightarrow> lex_case" where
  "mozcpp_lex_744 eof la = (Some mozcpp_sym_identifier,
      if la = CH_LF then ADVANCE 1183 else
      if la = CH_S then ADVANCE 756 else
      if la = CH_BACKSLASH then ADVANCE 286 else
      if (CH_TAB \<le> la \<and> la \<le> CH_CR) \<or> la = CH_SPACE then ADVANCE 5 else
      if (CH_0 \<le> la \<and> la \<le> CH_9) \<or> (CH_A \<le> la \<and> la \<le> CH_Z) \<or> la
        = CH_UNDERSCORE then ADVANCE 792 else
      if mozcpp_in_identifier la then ADVANCE 1152 else END_STATE)"

definition mozcpp_lex_745 :: "bool \<Rightarrow> codepoint \<Rightarrow> lex_case" where
  "mozcpp_lex_745 eof la = (Some mozcpp_sym_identifier,
      if la = CH_LF then ADVANCE 1183 else
      if la = CH_S then ADVANCE 774 else
      if la = CH_BACKSLASH then ADVANCE 286 else
      if (CH_TAB \<le> la \<and> la \<le> CH_CR) \<or> la = CH_SPACE then ADVANCE 5 else
      if (CH_0 \<le> la \<and> la \<le> CH_9) \<or> (CH_A \<le> la \<and> la \<le> CH_Z) \<or> la
        = CH_UNDERSCORE then ADVANCE 792 else
      if mozcpp_in_identifier la then ADVANCE 1152 else END_STATE)"

definition mozcpp_lex_746 :: "bool \<Rightarrow> codepoint \<Rightarrow> lex_case" where
  "mozcpp_lex_746 eof la = (Some mozcpp_sym_identifier,
      if la = CH_LF then ADVANCE 1183 else
      if la = CH_S then ADVANCE 725 else
      if la = CH_BACKSLASH then ADVANCE 286 else
      if (CH_TAB \<le> la \<and> la \<le> CH_CR) \<or> la = CH_SPACE then ADVANCE 5 else
      if (CH_0 \<le> la \<and> la \<le> CH_9) \<or> (CH_A \<le> la \<and> la \<le> CH_Z) \<or> la
        = CH_UNDERSCORE then ADVANCE 792 else
      if mozcpp_in_identifier la then ADVANCE 1152 else END_STATE)"

definition mozcpp_lex_747 :: "bool \<Rightarrow> codepoint \<Rightarrow> lex_case" where
  "mozcpp_lex_747 eof la = (Some mozcpp_sym_identifier,
      if la = CH_LF then ADVANCE 1183 else
      if la = CH_S then ADVANCE 768 else
      if la = CH_BACKSLASH then ADVANCE 286 else
      if (CH_TAB \<le> la \<and> la \<le> CH_CR) \<or> la = CH_SPACE then ADVANCE 5 else
      if (CH_0 \<le> la \<and> la \<le> CH_9) \<or> (CH_A \<le> la \<and> la \<le> CH_Z) \<or> la
        = CH_UNDERSCORE then ADVANCE 792 else
      if mozcpp_in_identifier la then ADVANCE 1152 else END_STATE)"

definition mozcpp_lex_748 :: "bool \<Rightarrow> codepoint \<Rightarrow> lex_case" where
  "mozcpp_lex_748 eof la = (Some mozcpp_sym_identifier,
      if la = CH_LF then ADVANCE 1183 else
      if la = CH_S then ADVANCE 789 else
      if la = CH_BACKSLASH then ADVANCE 286 else
      if (CH_TAB \<le> la \<and> la \<le> CH_CR) \<or> la = CH_SPACE then ADVANCE 5 else
      if (CH_0 \<le> la \<and> la \<le> CH_9) \<or> (CH_A \<le> la \<and> la \<le> CH_Z) \<or> la
        = CH_UNDERSCORE then ADVANCE 792 else
      if mozcpp_in_identifier la then ADVANCE 1152 else END_STATE)"

definition mozcpp_lex_749 :: "bool \<Rightarrow> codepoint \<Rightarrow> lex_case" where
  "mozcpp_lex_749 eof la = (Some mozcpp_sym_identifier,
      if la = CH_LF then ADVANCE 1183 else
      if la = CH_S then ADVANCE 612 else
      if la = CH_BACKSLASH then ADVANCE 286 else
      if (CH_TAB \<le> la \<and> la \<le> CH_CR) \<or> la = CH_SPACE then ADVANCE 5 else
      if (CH_0 \<le> la \<and> la \<le> CH_9) \<or> (CH_A \<le> la \<and> la \<le> CH_Z) \<or> la
        = CH_UNDERSCORE then ADVANCE 792 else
      if mozcpp_in_identifier la then ADVANCE 1152 else END_STATE)"

definition mozcpp_lex_750 :: "bool \<Rightarrow> codepoint \<Rightarrow> lex_case" where
  "mozcpp_lex_750 eof la = (Some mozcpp_sym_identifier,
      if la = CH_LF then ADVANCE 1183 else
      if la = CH_S then ADVANCE 762 else
      if la = CH_BACKSLASH then ADVANCE 286 else
      if (CH_TAB \<le> la \<and> la \<le> CH_CR) \<or> la = CH_SPACE then ADVANCE 5 else
      if (CH_0 \<le> la \<and> la \<le> CH_9) \<or> (CH_A \<le> la \<and> la \<le> CH_Z) \<or> la
        = CH_UNDERSCORE then ADVANCE 792 else
      if mozcpp_in_identifier la then ADVANCE 1152 else END_STATE)"

definition mozcpp_lex_751 :: "bool \<Rightarrow> codepoint \<Rightarrow> lex_case" where
  "mozcpp_lex_751 eof la = (Some mozcpp_sym_identifier,
      if la = CH_LF then ADVANCE 1183 else
      if la = CH_S then ADVANCE 653 else
      if la = CH_BACKSLASH then ADVANCE 286 else
      if (CH_TAB \<le> la \<and> la \<le> CH_CR) \<or> la = CH_SPACE then ADVANCE 5 else
      if (CH_0 \<le> la \<and> la \<le> CH_9) \<or> (CH_A \<le> la \<and> la \<le> CH_Z) \<or> la
        = CH_UNDERSCORE then ADVANCE 792 else
      if mozcpp_in_identifier la then ADVANCE 1152 else END_STATE)"

definition mozcpp_lex_752 :: "bool \<Rightarrow> codepoint \<Rightarrow> lex_case" where
  "mozcpp_lex_752 eof la = (Some mozcpp_sym_identifier,
      if la = CH_LF then ADVANCE 1183 else
      if la = CH_S then ADVANCE 767 else
      if la = CH_BACKSLASH then ADVANCE 286 else
      if (CH_TAB \<le> la \<and> la \<le> CH_CR) \<or> la = CH_SPACE then ADVANCE 5 else
      if (CH_0 \<le> la \<and> la \<le> CH_9) \<or> (CH_A \<le> la \<and> la \<le> CH_Z) \<or> la
        = CH_UNDERSCORE then ADVANCE 792 else
      if mozcpp_in_identifier la then ADVANCE 1152 else END_STATE)"

definition mozcpp_lex_753 :: "bool \<Rightarrow> codepoint \<Rightarrow> lex_case" where
  "mozcpp_lex_753 eof la = (Some mozcpp_sym_identifier,
      if la = CH_LF then ADVANCE 1183 else
      if la = CH_S then ADVANCE 765 else
      if la = CH_BACKSLASH then ADVANCE 286 else
      if (CH_TAB \<le> la \<and> la \<le> CH_CR) \<or> la = CH_SPACE then ADVANCE 5 else
      if (CH_0 \<le> la \<and> la \<le> CH_9) \<or> (CH_A \<le> la \<and> la \<le> CH_Z) \<or> la
        = CH_UNDERSCORE then ADVANCE 792 else
      if mozcpp_in_identifier la then ADVANCE 1152 else END_STATE)"

definition mozcpp_lex_754 :: "bool \<Rightarrow> codepoint \<Rightarrow> lex_case" where
  "mozcpp_lex_754 eof la = (Some mozcpp_sym_identifier,
      if la = CH_LF then ADVANCE 1183 else
      if la = CH_S then ADVANCE 707 else
      if la = CH_BACKSLASH then ADVANCE 286 else
      if (CH_TAB \<le> la \<and> la \<le> CH_CR) \<or> la = CH_SPACE then ADVANCE 5 else
      if (CH_0 \<le> la \<and> la \<le> CH_9) \<or> (CH_A \<le> la \<and> la \<le> CH_Z) \<or> la
        = CH_UNDERSCORE then ADVANCE 792 else
      if mozcpp_in_identifier la then ADVANCE 1152 else END_STATE)"

definition mozcpp_lex_755 :: "bool \<Rightarrow> codepoint \<Rightarrow> lex_case" where
  "mozcpp_lex_755 eof la = (Some mozcpp_sym_identifier,
      if la = CH_LF then ADVANCE 1183 else
      if la = CH_T then ADVANCE 758 else
      if la = CH_BACKSLASH then ADVANCE 286 else
      if (CH_TAB \<le> la \<and> la \<le> CH_CR) \<or> la = CH_SPACE then ADVANCE 5 else
      if (CH_0 \<le> la \<and> la \<le> CH_9) \<or> (CH_A \<le> la \<and> la \<le> CH_Z) \<or> la
        = CH_UNDERSCORE then ADVANCE 792 else
      if mozcpp_in_identifier la then ADVANCE 1152 else END_STATE)"

definition mozcpp_lex_756 :: "bool \<Rightarrow> codepoint \<Rightarrow> lex_case" where
  "mozcpp_lex_756 eof la = (Some mozcpp_sym_identifier,
      if la = CH_LF then ADVANCE 1183 else
      if la = CH_T then ADVANCE 482 else
      if la = CH_BACKSLASH then ADVANCE 286 else
      if (CH_TAB \<le> la \<and> la \<le> CH_CR) \<or> la = CH_SPACE then ADVANCE 5 else
      if (CH_0 \<le> la \<and> la \<le> CH_9) \<or> (CH_A \<le> la \<and> la \<le> CH_Z) \<or> la
        = CH_UNDERSCORE then ADVANCE 792 else
      if mozcpp_in_identifier la then ADVANCE 1152 else END_STATE)"

definition mozcpp_lex_757 :: "bool \<Rightarrow> codepoint \<Rightarrow> lex_case" where
  "mozcpp_lex_757 eof la = (Some mozcpp_sym_identifier,
      if la = CH_LF then ADVANCE 1183 else
      if la = CH_T then ADVANCE 477 else
      if la = CH_BACKSLASH then ADVANCE 286 else
      if (CH_TAB \<le> la \<and> la \<le> CH_CR) \<or> la = CH_SPACE then ADVANCE 5 else
      if (CH_0 \<le> la \<and> la \<le> CH_9) \<or> (CH_A \<le> la \<and> la \<le> CH_Z) \<or> la
        = CH_UNDERSCORE then ADVANCE 792 else
      if mozcpp_in_identifier la then ADVANCE 1152 else END_STATE)"

definition mozcpp_lex_758 :: "bool \<Rightarrow> codepoint \<Rightarrow> lex_case" where
  "mozcpp_lex_758 eof la = (Some mozcpp_sym_identifier,
      if la = CH_LF then ADVANCE 1183 else
      if la = CH_T then ADVANCE 609 else
      if la = CH_BACKSLASH then ADVANCE 286 else
      if (CH_TAB \<le> la \<and> la \<le> CH_CR) \<or> la = CH_SPACE then ADVANCE 5 else
      if (CH_0 \<le> la \<and> la \<le> CH_9) \<or> (CH_A \<le> la \<and> la \<le> CH_Z) \<or> la
        = CH_UNDERSCORE then ADVANCE 792 else
      if mozcpp_in_identifier la then ADVANCE 1152 else END_STATE)"

definition mozcpp_lex_759 :: "bool \<Rightarrow> codepoint \<Rightarrow> lex_case" where
  "mozcpp_lex_759 eof la = (Some mozcpp_sym_identifier,
      if la = CH_LF then ADVANCE 1183 else
      if la = CH_T then ADVANCE 675 else
      if la = CH_BACKSLASH then ADVANCE 286 else
      if (CH_TAB \<le> la \<and> la \<le> CH_CR) \<or> la = CH_SPACE then ADVANCE 5 else
      if (CH_0 \<le> la \<and> la \<le> CH_9) \<or> (CH_A \<le> la \<and> la \<le> CH_Z) \<or> la
        = CH_UNDERSCORE then ADVANCE 792 else
      if mozcpp_in_identifier la then ADVANCE 1152 else END_STATE)"

definition mozcpp_lex_760 :: "bool \<Rightarrow> codepoint \<Rightarrow> lex_case" where
  "mozcpp_lex_760 eof la = (Some mozcpp_sym_identifier,
      if la = CH_LF then ADVANCE 1183 else
      if la = CH_T then ADVANCE 726 else
      if la = CH_BACKSLASH then ADVANCE 286 else
      if (CH_TAB \<le> la \<and> la \<le> CH_CR) \<or> la = CH_SPACE then ADVANCE 5 else
      if (CH_0 \<le> la \<and> la \<le> CH_9) \<or> (CH_A \<le> la \<and> la \<le> CH_Z) \<or> la
        = CH_UNDERSCORE then ADVANCE 792 else
      if mozcpp_in_identifier la then ADVANCE 1152 else END_STATE)"

definition mozcpp_lex_761 :: "bool \<Rightarrow> codepoint \<Rightarrow> lex_case" where
  "mozcpp_lex_761 eof la = (Some mozcpp_sym_identifier,
      if la = CH_LF then ADVANCE 1183 else
      if la = CH_T then ADVANCE 571 else
      if la = CH_BACKSLASH then ADVANCE 286 else
      if (CH_TAB \<le> la \<and> la \<le> CH_CR) \<or> la = CH_SPACE then ADVANCE 5 else
      if (CH_0 \<le> la \<and> la \<le> CH_9) \<or> (CH_A \<le> la \<and> la \<le> CH_Z) \<or> la
        = CH_UNDERSCORE then ADVANCE 792 else
      if mozcpp_in_identifier la then ADVANCE 1152 else END_STATE)"

definition mozcpp_lex_762 :: "bool \<Rightarrow> codepoint \<Rightarrow> lex_case" where
  "mozcpp_lex_762 eof la = (Some mozcpp_sym_identifier,
      if la = CH_LF then ADVANCE 1183 else
      if la = CH_T then ADVANCE 569 else
      if la = CH_BACKSLASH then ADVANCE 286 else
      if (CH_TAB \<le> la \<and> la \<le> CH_CR) \<or> la = CH_SPACE then ADVANCE 5 else
      if (CH_0 \<le> la \<and> la \<le> CH_9) \<or> (CH_A \<le> la \<and> la \<le> CH_Z) \<or> la
        = CH_UNDERSCORE then ADVANCE 792 else
      if mozcpp_in_identifier la then ADVANCE 1152 else END_STATE)"

definition mozcpp_lex_763 :: "bool \<Rightarrow> codepoint \<Rightarrow> lex_case" where
  "mozcpp_lex_763 eof la = (Some mozcpp_sym_identifier,
      if la = CH_LF then ADVANCE 1183 else
      if la = CH_T then ADVANCE 625 else
      if la = CH_BACKSLASH then ADVANCE 286 else
      if (CH_TAB \<le> la \<and> la \<le> CH_CR) \<or> la = CH_SPACE then ADVANCE 5 else
      if (CH_0 \<le> la \<and> la \<le> CH_9) \<or> (CH_A \<le> la \<and> la \<le> CH_Z) \<or> la
        = CH_UNDERSCORE then ADVANCE 792 else
      if mozcpp_in_identifier la then ADVANCE 1152 else END_STATE)"

definition mozcpp_lex_764 :: "bool \<Rightarrow> codepoint \<Rightarrow> lex_case" where
  "mozcpp_lex_764 eof la = (Some mozcpp_sym_identifier,
      if la = CH_LF then ADVANCE 1183 else
      if la = CH_T then ADVANCE 728 else
      if la = CH_BACKSLASH then ADVANCE 286 else
      if (CH_TAB \<le> la \<and> la \<le> CH_CR) \<or> la = CH_SPACE then ADVANCE 5 else
      if (CH_0 \<le> la \<and> la \<le> CH_9) \<or> (CH_A \<le> la \<and> la \<le> CH_Z) \<or> la
        = CH_UNDERSCORE then ADVANCE 792 else
      if mozcpp_in_identifier la then ADVANCE 1152 else END_STATE)"

definition mozcpp_lex_765 :: "bool \<Rightarrow> codepoint \<Rightarrow> lex_case" where
  "mozcpp_lex_765 eof la = (Some mozcpp_sym_identifier,
      if la = CH_LF then ADVANCE 1183 else
      if la = CH_T then ADVANCE 740 else
      if la = CH_BACKSLASH then ADVANCE 286 else
      if (CH_TAB \<le> la \<and> la \<le> CH_CR) \<or> la = CH_SPACE then ADVANCE 5 else
      if (CH_0 \<le> la \<and> la \<le> CH_9) \<or> (CH_A \<le> la \<and> la \<le> CH_Z) \<or> la
        = CH_UNDERSCORE then ADVANCE 792 else
      if mozcpp_in_identifier la then ADVANCE 1152 else END_STATE)"

definition mozcpp_lex_766 :: "bool \<Rightarrow> codepoint \<Rightarrow> lex_case" where
  "mozcpp_lex_766 eof la = (Some mozcpp_sym_identifier,
      if la = CH_LF then ADVANCE 1183 else
      if la = CH_T then ADVANCE 775 else
      if la = CH_BACKSLASH then ADVANCE 286 else
      if (CH_TAB \<le> la \<and> la \<le> CH_CR) \<or> la = CH_SPACE then ADVANCE 5 else
      if (CH_0 \<le> la \<and> la \<le> CH_9) \<or> (CH_A \<le> la \<and> la \<le> CH_Z) \<or> la
        = CH_UNDERSCORE then ADVANCE 792 else
      if mozcpp_in_identifier la then ADVANCE 1152 else END_STATE)"

definition mozcpp_lex_767 :: "bool \<Rightarrow> codepoint \<Rightarrow> lex_case" where
  "mozcpp_lex_767 eof la = (Some mozcpp_sym_identifier,
      if la = CH_LF then ADVANCE 1183 else
      if la = CH_T then ADVANCE 583 else
      if la = CH_BACKSLASH then ADVANCE 286 else
      if (CH_TAB \<le> la \<and> la \<le> CH_CR) \<or> la = CH_SPACE then ADVANCE 5 else
      if (CH_0 \<le> la \<and> la \<le> CH_9) \<or> (CH_A \<le> la \<and> la \<le> CH_Z) \<or> la
        = CH_UNDERSCORE then ADVANCE 792 else
      if mozcpp_in_identifier la then ADVANCE 1152 else END_STATE)"

definition mozcpp_lex_768 :: "bool \<Rightarrow> codepoint \<Rightarrow> lex_case" where
  "mozcpp_lex_768 eof la = (Some mozcpp_sym_identifier,
      if la = CH_LF then ADVANCE 1183 else
      if la = CH_T then ADVANCE 584 else
      if la = CH_BACKSLASH then ADVANCE 286 else
      if (CH_TAB \<le> la \<and> la \<le> CH_CR) \<or> la = CH_SPACE then ADVANCE 5 else
      if (CH_0 \<le> la \<and> la \<le> CH_9) \<or> (CH_A \<le> la \<and> la \<le> CH_Z) \<or> la
        = CH_UNDERSCORE then ADVANCE 792 else
      if mozcpp_in_identifier la then ADVANCE 1152 else END_STATE)"

definition mozcpp_lex_769 :: "bool \<Rightarrow> codepoint \<Rightarrow> lex_case" where
  "mozcpp_lex_769 eof la = (Some mozcpp_sym_identifier,
      if la = CH_LF then ADVANCE 1183 else
      if la = CH_T then ADVANCE 707 else
      if la = CH_BACKSLASH then ADVANCE 286 else
      if (CH_TAB \<le> la \<and> la \<le> CH_CR) \<or> la = CH_SPACE then ADVANCE 5 else
      if (CH_0 \<le> la \<and> la \<le> CH_9) \<or> (CH_A \<le> la \<and> la \<le> CH_Z) \<or> la
        = CH_UNDERSCORE then ADVANCE 792 else
      if mozcpp_in_identifier la then ADVANCE 1152 else END_STATE)"

definition mozcpp_lex_770 :: "bool \<Rightarrow> codepoint \<Rightarrow> lex_case" where
  "mozcpp_lex_770 eof la = (Some mozcpp_sym_identifier,
      if la = CH_LF then ADVANCE 1183 else
      if la = CH_U then ADVANCE 482 else
      if la = CH_BACKSLASH then ADVANCE 286 else
      if (CH_TAB \<le> la \<and> la \<le> CH_CR) \<or> la = CH_SPACE then ADVANCE 5 else
      if (CH_0 \<le> la \<and> la \<le> CH_9) \<or> (CH_A \<le> la \<and> la \<le> CH_Z) \<or> la
        = CH_UNDERSCORE then ADVANCE 792 else
      if mozcpp_in_identifier la then ADVANCE 1152 else END_STATE)"

definition mozcpp_lex_771 :: "bool \<Rightarrow> codepoint \<Rightarrow> lex_case" where
  "mozcpp_lex_771 eof la = (Some mozcpp_sym_identifier,
      if la = CH_LF then ADVANCE 1183 else
      if la = CH_U then ADVANCE 668 else
      if la = CH_BACKSLASH then ADVANCE 286 else
      if (CH_TAB \<le> la \<and> la \<le> CH_CR) \<or> la = CH_SPACE then ADVANCE 5 else
      if (CH_0 \<le> la \<and> la \<le> CH_9) \<or> (CH_A \<le> la \<and> la \<le> CH_Z) \<or> la
        = CH_UNDERSCORE then ADVANCE 792 else
      if mozcpp_in_identifier la then ADVANCE 1152 else END_STATE)"

definition mozcpp_lex_772 :: "bool \<Rightarrow> codepoint \<Rightarrow> lex_case" where
  "mozcpp_lex_772 eof la = (Some mozcpp_sym_identifier,
      if la = CH_LF then ADVANCE 1183 else
      if la = CH_U then ADVANCE 743 else
      if la = CH_BACKSLASH then ADVANCE 286 else
      if (CH_TAB \<le> la \<and> la \<le> CH_CR) \<or> la = CH_SPACE then ADVANCE 5 else
      if (CH_0 \<le> la \<and> la \<le> CH_9) \<or> (CH_A \<le> la \<and> la \<le> CH_Z) \<or> la
        = CH_UNDERSCORE then ADVANCE 792 else
      if mozcpp_in_identifier la then ADVANCE 1152 else END_STATE)"

definition mozcpp_lex_773 :: "bool \<Rightarrow> codepoint \<Rightarrow> lex_case" where
  "mozcpp_lex_773 eof la = (Some mozcpp_sym_identifier,
      if la = CH_LF then ADVANCE 1183 else
      if la = CH_U then ADVANCE 611 else
      if la = CH_BACKSLASH then ADVANCE 286 else
      if (CH_TAB \<le> la \<and> la \<le> CH_CR) \<or> la = CH_SPACE then ADVANCE 5 else
      if (CH_0 \<le> la \<and> la \<le> CH_9) \<or> (CH_A \<le> la \<and> la \<le> CH_Z) \<or> la
        = CH_UNDERSCORE then ADVANCE 792 else
      if mozcpp_in_identifier la then ADVANCE 1152 else END_STATE)"

definition mozcpp_lex_774 :: "bool \<Rightarrow> codepoint \<Rightarrow> lex_case" where
  "mozcpp_lex_774 eof la = (Some mozcpp_sym_identifier,
      if la = CH_LF then ADVANCE 1183 else
      if la = CH_U then ADVANCE 670 else
      if la = CH_BACKSLASH then ADVANCE 286 else
      if (CH_TAB \<le> la \<and> la \<le> CH_CR) \<or> la = CH_SPACE then ADVANCE 5 else
      if (CH_0 \<le> la \<and> la \<le> CH_9) \<or> (CH_A \<le> la \<and> la \<le> CH_Z) \<or> la
        = CH_UNDERSCORE then ADVANCE 792 else
      if mozcpp_in_identifier la then ADVANCE 1152 else END_STATE)"

definition mozcpp_lex_775 :: "bool \<Rightarrow> codepoint \<Rightarrow> lex_case" where
  "mozcpp_lex_775 eof la = (Some mozcpp_sym_identifier,
      if la = CH_LF then ADVANCE 1183 else
      if la = CH_U then ADVANCE 748 else
      if la = CH_BACKSLASH then ADVANCE 286 else
      if (CH_TAB \<le> la \<and> la \<le> CH_CR) \<or> la = CH_SPACE then ADVANCE 5 else
      if (CH_0 \<le> la \<and> la \<le> CH_9) \<or> (CH_A \<le> la \<and> la \<le> CH_Z) \<or> la
        = CH_UNDERSCORE then ADVANCE 792 else
      if mozcpp_in_identifier la then ADVANCE 1152 else END_STATE)"

definition mozcpp_lex_776 :: "bool \<Rightarrow> codepoint \<Rightarrow> lex_case" where
  "mozcpp_lex_776 eof la = (Some mozcpp_sym_identifier,
      if la = CH_LF then ADVANCE 1183 else
      if la = CH_V then ADVANCE 481 else
      if la = CH_BACKSLASH then ADVANCE 286 else
      if (CH_TAB \<le> la \<and> la \<le> CH_CR) \<or> la = CH_SPACE then ADVANCE 5 else
      if (CH_0 \<le> la \<and> la \<le> CH_9) \<or> (CH_A \<le> la \<and> la \<le> CH_Z) \<or> la
        = CH_UNDERSCORE then ADVANCE 792 else
      if mozcpp_in_identifier la then ADVANCE 1152 else END_STATE)"

definition mozcpp_lex_777 :: "bool \<Rightarrow> codepoint \<Rightarrow> lex_case" where
  "mozcpp_lex_777 eof la = (Some mozcpp_sym_identifier,
      if la = CH_LF then ADVANCE 1183 else
      if la = CH_V then ADVANCE 659 else
      if la = CH_BACKSLASH then ADVANCE 286 else
      if (CH_TAB \<le> la \<and> la \<le> CH_CR) \<or> la = CH_SPACE then ADVANCE 5 else
      if (CH_0 \<le> la \<and> la \<le> CH_9) \<or> (CH_A \<le> la \<and> la \<le> CH_Z) \<or> la
        = CH_UNDERSCORE then ADVANCE 792 else
      if mozcpp_in_identifier la then ADVANCE 1152 else END_STATE)"

definition mozcpp_lex_778 :: "bool \<Rightarrow> codepoint \<Rightarrow> lex_case" where
  "mozcpp_lex_778 eof la = (Some mozcpp_sym_identifier,
      if la = CH_LF then ADVANCE 1183 else
      if la = CH_W then ADVANCE 709 else
      if la = CH_BACKSLASH then ADVANCE 286 else
      if (CH_TAB \<le> la \<and> la \<le> CH_CR) \<or> la = CH_SPACE then ADVANCE 5 else
      if (CH_0 \<le> la \<and> la \<le> CH_9) \<or> (CH_A \<le> la \<and> la \<le> CH_Z) \<or> la
        = CH_UNDERSCORE then ADVANCE 792 else
      if mozcpp_in_identifier la then ADVANCE 1152 else END_STATE)"

definition mozcpp_lex_779 :: "bool \<Rightarrow> codepoint \<Rightarrow> lex_case" where
  "mozcpp_lex_779 eof la = (Some mozcpp_sym_identifier,
      if la = CH_LF then ADVANCE 1183 else
      if la = CH_W then ADVANCE 706 else
      if la = CH_BACKSLASH then ADVANCE 286 else
      if (CH_TAB \<le> la \<and> la \<le> CH_CR) \<or> la = CH_SPACE then ADVANCE 5 else
      if (CH_0 \<le> la \<and> la \<le> CH_9) \<or> (CH_A \<le> la \<and> la \<le> CH_Z) \<or> la
        = CH_UNDERSCORE then ADVANCE 792 else
      if mozcpp_in_identifier la then ADVANCE 1152 else END_STATE)"

definition mozcpp_lex_780 :: "bool \<Rightarrow> codepoint \<Rightarrow> lex_case" where
  "mozcpp_lex_780 eof la = (Some mozcpp_sym_identifier,
      if la = CH_LF then ADVANCE 1183 else
      if la = CH_Y then ADVANCE 758 else
      if la = CH_BACKSLASH then ADVANCE 286 else
      if (CH_TAB \<le> la \<and> la \<le> CH_CR) \<or> la = CH_SPACE then ADVANCE 5 else
      if (CH_0 \<le> la \<and> la \<le> CH_9) \<or> (CH_A \<le> la \<and> la \<le> CH_Z) \<or> la
        = CH_UNDERSCORE then ADVANCE 792 else
      if mozcpp_in_identifier la then ADVANCE 1152 else END_STATE)"

definition mozcpp_lex_781 :: "bool \<Rightarrow> codepoint \<Rightarrow> lex_case" where
  "mozcpp_lex_781 eof la = (Some mozcpp_sym_identifier,
      if la = CH_LF then ADVANCE 1183 else
      if la = CH_Y then ADVANCE 482 else
      if la = CH_BACKSLASH then ADVANCE 286 else
      if (CH_TAB \<le> la \<and> la \<le> CH_CR) \<or> la = CH_SPACE then ADVANCE 5 else
      if (CH_0 \<le> la \<and> la \<le> CH_9) \<or> (CH_A \<le> la \<and> la \<le> CH_Z) \<or> la
        = CH_UNDERSCORE then ADVANCE 792 else
      if mozcpp_in_identifier la then ADVANCE 1152 else END_STATE)"

definition mozcpp_lex_782 :: "bool \<Rightarrow> codepoint \<Rightarrow> lex_case" where
  "mozcpp_lex_782 eof la = (Some mozcpp_sym_identifier,
      if la = CH_LF then ADVANCE 1183 else
      if la = CH_Y then ADVANCE 722 else
      if la = CH_BACKSLASH then ADVANCE 286 else
      if (CH_TAB \<le> la \<and> la \<le> CH_CR) \<or> la = CH_SPACE then ADVANCE 5 else
      if (CH_0 \<le> la \<and> la \<le> CH_9) \<or> (CH_A \<le> la \<and> la \<le> CH_Z) \<or> la
        = CH_UNDERSCORE then ADVANCE 792 else
      if mozcpp_in_identifier la then ADVANCE 1152 else END_STATE)"

definition mozcpp_lex_783 :: "bool \<Rightarrow> codepoint \<Rightarrow> lex_case" where
  "mozcpp_lex_783 eof la = (Some mozcpp_sym_identifier,
      if la = CH_LF then ADVANCE 1183 else
      if la = CH_Z then ADVANCE 482 else
      if la = CH_BACKSLASH then ADVANCE 286 else
      if (CH_TAB \<le> la \<and> la \<le> CH_CR) \<or> la = CH_SPACE then ADVANCE 5 else
      if (CH_0 \<le> la \<and> la \<le> CH_9) \<or> (CH_A \<le> la \<and> la \<le> CH_Y) \<or> la
        = CH_UNDERSCORE then ADVANCE 792 else
      if mozcpp_in_identifier la then ADVANCE 1152 else END_STATE)"

definition mozcpp_lex_784 :: "bool \<Rightarrow> codepoint \<Rightarrow> lex_case" where
  "mozcpp_lex_784 eof la = (Some mozcpp_sym_identifier,
      if la = CH_LF then ADVANCE 1183 else
      if la = CH_Z then ADVANCE 616 else
      if la = CH_BACKSLASH then ADVANCE 286 else
      if (CH_TAB \<le> la \<and> la \<le> CH_CR) \<or> la = CH_SPACE then ADVANCE 5 else
      if (CH_0 \<le> la \<and> la \<le> CH_9) \<or> (CH_A \<le> la \<and> la \<le> CH_Y) \<or> la
        = CH_UNDERSCORE then ADVANCE 792 else
      if mozcpp_in_identifier la then ADVANCE 1152 else END_STATE)"

definition mozcpp_lex_785 :: "bool \<Rightarrow> codepoint \<Rightarrow> lex_case" where
  "mozcpp_lex_785 eof la = (Some mozcpp_sym_identifier,
      if la = CH_LF then ADVANCE 1183 else
      if la = CH_BACKSLASH then ADVANCE 286 else
      if la = CH_UNDERSCORE then ADVANCE 639 else
      if (CH_TAB \<le> la \<and> la \<le> CH_CR) \<or> la = CH_SPACE then ADVANCE 5 else
      if (CH_0 \<le> la \<and> la \<le> CH_9) \<or> (CH_A \<le> la \<and> la \<le> CH_Z) then
        ADVANCE 792 else
      if mozcpp_in_identifier la then ADVANCE 1152 else END_STATE)"

definition mozcpp_lex_786 :: "bool \<Rightarrow> codepoint \<Rightarrow> lex_case" where
  "mozcpp_lex_786 eof la = (Some mozcpp_sym_identifier,
      if la = CH_LF then ADVANCE 1183 else
      if la = CH_BACKSLASH then ADVANCE 286 else
      if la = CH_UNDERSCORE then ADVANCE 565 else
      if (CH_TAB \<le> la \<and> la \<le> CH_CR) \<or> la = CH_SPACE then ADVANCE 5 else
      if (CH_0 \<le> la \<and> la \<le> CH_9) \<or> (CH_A \<le> la \<and> la \<le> CH_Z) then
        ADVANCE 792 else
      if mozcpp_in_identifier la then ADVANCE 1152 else END_STATE)"

definition mozcpp_lex_787 :: "bool \<Rightarrow> codepoint \<Rightarrow> lex_case" where
  "mozcpp_lex_787 eof la = (Some mozcpp_sym_identifier,
      if la = CH_LF then ADVANCE 1183 else
      if la = CH_BACKSLASH then ADVANCE 286 else
      if la = CH_UNDERSCORE then ADVANCE 723 else
      if (CH_TAB \<le> la \<and> la \<le> CH_CR) \<or> la = CH_SPACE then ADVANCE 5 else
      if (CH_0 \<le> la \<and> la \<le> CH_9) \<or> (CH_A \<le> la \<and> la \<le> CH_Z) then
        ADVANCE 792 else
      if mozcpp_in_identifier la then ADVANCE 1152 else END_STATE)"

definition mozcpp_lex_788 :: "bool \<Rightarrow> codepoint \<Rightarrow> lex_case" where
  "mozcpp_lex_788 eof la = (Some mozcpp_sym_identifier,
      if la = CH_LF then ADVANCE 1183 else
      if la = CH_BACKSLASH then ADVANCE 286 else
      if la = CH_UNDERSCORE then ADVANCE 756 else
      if (CH_TAB \<le> la \<and> la \<le> CH_CR) \<or> la = CH_SPACE then ADVANCE 5 else
      if (CH_0 \<le> la \<and> la \<le> CH_9) \<or> (CH_A \<le> la \<and> la \<le> CH_Z) then
        ADVANCE 792 else
      if mozcpp_in_identifier la then ADVANCE 1152 else END_STATE)"

definition mozcpp_lex_789 :: "bool \<Rightarrow> codepoint \<Rightarrow> lex_case" where
  "mozcpp_lex_789 eof la = (Some mozcpp_sym_identifier,
      if la = CH_LF then ADVANCE 1183 else
      if la = CH_BACKSLASH then ADVANCE 286 else
      if la = CH_UNDERSCORE then ADVANCE 640 else
      if (CH_TAB \<le> la \<and> la \<le> CH_CR) \<or> la = CH_SPACE then ADVANCE 5 else
      if (CH_0 \<le> la \<and> la \<le> CH_9) \<or> (CH_A \<le> la \<and> la \<le> CH_Z) then
        ADVANCE 792 else
      if mozcpp_in_identifier la then ADVANCE 1152 else END_STATE)"

definition mozcpp_lex_790 :: "bool \<Rightarrow> codepoint \<Rightarrow> lex_case" where
  "mozcpp_lex_790 eof la = (Some mozcpp_sym_identifier,
      if la = CH_LF then ADVANCE 1183 else
      if la = CH_BACKSLASH then ADVANCE 286 else
      if la = CH_UNDERSCORE then ADVANCE 752 else
      if (CH_TAB \<le> la \<and> la \<le> CH_CR) \<or> la = CH_SPACE then ADVANCE 5 else
      if (CH_0 \<le> la \<and> la \<le> CH_9) \<or> (CH_A \<le> la \<and> la \<le> CH_Z) then
        ADVANCE 792 else
      if mozcpp_in_identifier la then ADVANCE 1152 else END_STATE)"

definition mozcpp_lex_791 :: "bool \<Rightarrow> codepoint \<Rightarrow> lex_case" where
  "mozcpp_lex_791 eof la = (Some mozcpp_sym_identifier,
      if la = CH_LF then ADVANCE 1183 else
      if la = CH_BACKSLASH then ADVANCE 286 else
      if la = CH_UNDERSCORE then ADVANCE 753 else
      if (CH_TAB \<le> la \<and> la \<le> CH_CR) \<or> la = CH_SPACE then ADVANCE 5 else
      if (CH_0 \<le> la \<and> la \<le> CH_9) \<or> (CH_A \<le> la \<and> la \<le> CH_Z) then
        ADVANCE 792 else
      if mozcpp_in_identifier la then ADVANCE 1152 else END_STATE)"

definition mozcpp_lex_792 :: "bool \<Rightarrow> codepoint \<Rightarrow> lex_case" where
  "mozcpp_lex_792 eof la = (Some mozcpp_sym_identifier,
      if la = CH_LF then ADVANCE 1183 else
      if la = CH_BACKSLASH then ADVANCE 286 else
      if (CH_TAB \<le> la \<and> la \<le> CH_CR) \<or> la = CH_SPACE then ADVANCE 5 else
      if (CH_0 \<le> la \<and> la \<le> CH_9) \<or> (CH_A \<le> la \<and> la \<le> CH_Z) \<or> la
        = CH_UNDERSCORE then ADVANCE 792 else
      if mozcpp_in_identifier la then ADVANCE 1152 else END_STATE)"

definition mozcpp_lex_793 :: "bool \<Rightarrow> codepoint \<Rightarrow> lex_case" where
  "mozcpp_lex_793 eof la = (Some mozcpp_sym_identifier,
      case ADVANCE_MAP [(CH_DQUOTE, 539), (CH_QUOTE, 530), (CH_A, 679), (CH_C, 647), (CH_G, 730),
        (CH_O, 682), (CH_P, 579), (CH_R, 562), (CH_BACKSLASH, 286)] la of Some st \<Rightarrow>
        ADVANCE st | None \<Rightarrow> (
      if (CH_0 \<le> la \<and> la \<le> CH_9) \<or> (CH_B \<le> la \<and> la \<le> CH_Z) \<or> la
        = CH_UNDERSCORE then ADVANCE 792 else
      if mozcpp_in_identifier la then ADVANCE 1152 else END_STATE))"

definition mozcpp_lex_794 :: "bool \<Rightarrow> codepoint \<Rightarrow> lex_case" where
  "mozcpp_lex_794 eof la = (Some mozcpp_sym_identifier,
      case ADVANCE_MAP [(CH_DQUOTE, 539), (CH_QUOTE, 530), (CH_A, 960), (CH_C, 928), (CH_G,
        1017), (CH_O, 963), (CH_P, 848), (CH_R, 809), (CH_BACKSLASH, 286)] la of Some st
        \<Rightarrow> ADVANCE st | None \<Rightarrow> (
      if mozcpp_in_identifier la then ADVANCE 1152 else END_STATE))"

definition mozcpp_lex_795 :: "bool \<Rightarrow> codepoint \<Rightarrow> lex_case" where
  "mozcpp_lex_795 eof la = (Some mozcpp_sym_identifier,
      case ADVANCE_MAP [(CH_DQUOTE, 539), (CH_A, 960), (CH_C, 928), (CH_G, 1017), (CH_O, 963),
        (CH_P, 848), (CH_R, 899), (CH_BACKSLASH, 286)] la of Some st \<Rightarrow> ADVANCE st |
        None \<Rightarrow> (
      if mozcpp_in_identifier la then ADVANCE 1152 else END_STATE))"

definition mozcpp_lex_796 :: "bool \<Rightarrow> codepoint \<Rightarrow> lex_case" where
  "mozcpp_lex_796 eof la = (Some mozcpp_sym_identifier,
      if la = CH_DQUOTE then ADVANCE 539 else
      if la = CH_R then ADVANCE 810 else
      if la = CH_BACKSLASH then ADVANCE 286 else
      if mozcpp_in_identifier la then ADVANCE 1152 else END_STATE)"

definition mozcpp_lex_797 :: "bool \<Rightarrow> codepoint \<Rightarrow> lex_case" where
  "mozcpp_lex_797 eof la = (Some mozcpp_sym_identifier,
      if la = CH_DQUOTE then ADVANCE 539 else
      if la = CH_BACKSLASH then ADVANCE 286 else
      if mozcpp_in_identifier la then ADVANCE 1152 else END_STATE)"

definition mozcpp_lex_798 :: "bool \<Rightarrow> codepoint \<Rightarrow> lex_case" where
  "mozcpp_lex_798 eof la = (Some mozcpp_sym_identifier,
      if la = CH_DQUOTE then ADVANCE 1164 else
      if la = CH_BACKSLASH then ADVANCE 286 else
      if (CH_0 \<le> la \<and> la \<le> CH_9) \<or> (CH_A \<le> la \<and> la \<le> CH_Z) \<or> la
        = CH_UNDERSCORE then ADVANCE 792 else
      if mozcpp_in_identifier la then ADVANCE 1152 else END_STATE)"

definition mozcpp_lex_799 :: "bool \<Rightarrow> codepoint \<Rightarrow> lex_case" where
  "mozcpp_lex_799 eof la = (Some mozcpp_sym_identifier,
      if la = CH_DQUOTE then ADVANCE 1164 else
      if la = CH_BACKSLASH then ADVANCE 286 else
      if mozcpp_in_identifier la then ADVANCE 1152 else END_STATE)"

definition mozcpp_lex_800 :: "bool \<Rightarrow> codepoint \<Rightarrow> lex_case" where
  "mozcpp_lex_800 eof la = (Some mozcpp_sym_identifier,
      case ADVANCE_MAP [(CH_DQUOTE, 541), (CH_QUOTE, 532), (CH_C, 917), (CH_H, 845), (CH_I, 961),
        (CH_L, 989), (CH_N, 931), (CH_R, 811), (CH_S, 923), (CH_BACKSLASH, 286)] la of Some st
        \<Rightarrow> ADVANCE st | None \<Rightarrow> (
      if mozcpp_in_identifier la then ADVANCE 1152 else END_STATE))"

definition mozcpp_lex_801 :: "bool \<Rightarrow> codepoint \<Rightarrow> lex_case" where
  "mozcpp_lex_801 eof la = (Some mozcpp_sym_identifier,
      case ADVANCE_MAP [(CH_DQUOTE, 541), (CH_QUOTE, 532), (CH_C, 636), (CH_H, 576), (CH_I, 680),
        (CH_L, 705), (CH_N, 650), (CH_R, 563), (CH_S, 642), (CH_BACKSLASH, 286)] la of Some st
        \<Rightarrow> ADVANCE st | None \<Rightarrow> (
      if (CH_0 \<le> la \<and> la \<le> CH_9) \<or> (CH_A \<le> la \<and> la \<le> CH_Z) \<or> la
        = CH_UNDERSCORE then ADVANCE 792 else
      if mozcpp_in_identifier la then ADVANCE 1152 else END_STATE))"

definition mozcpp_lex_802 :: "bool \<Rightarrow> codepoint \<Rightarrow> lex_case" where
  "mozcpp_lex_802 eof la = (Some mozcpp_sym_identifier,
      case ADVANCE_MAP [(CH_DQUOTE, 541), (CH_C, 917), (CH_H, 845), (CH_I, 961), (CH_L, 989),
        (CH_N, 931), (CH_S, 923), (CH_BACKSLASH, 286)] la of Some st \<Rightarrow> ADVANCE st |
        None \<Rightarrow> (
      if mozcpp_in_identifier la then ADVANCE 1152 else END_STATE))"

definition mozcpp_lex_803 :: "bool \<Rightarrow> codepoint \<Rightarrow> lex_case" where
  "mozcpp_lex_803 eof la = (Some mozcpp_sym_identifier,
      if la = CH_DQUOTE then ADVANCE 541 else
      if la = CH_R then ADVANCE 811 else
      if la = CH_BACKSLASH then ADVANCE 286 else
      if mozcpp_in_identifier la then ADVANCE 1152 else END_STATE)"

definition mozcpp_lex_804 :: "bool \<Rightarrow> codepoint \<Rightarrow> lex_case" where
  "mozcpp_lex_804 eof la = (Some mozcpp_sym_identifier,
      if la = CH_DQUOTE then ADVANCE 541 else
      if la = CH_BACKSLASH then ADVANCE 286 else
      if mozcpp_in_identifier la then ADVANCE 1152 else END_STATE)"

definition mozcpp_lex_805 :: "bool \<Rightarrow> codepoint \<Rightarrow> lex_case" where
  "mozcpp_lex_805 eof la = (Some mozcpp_sym_identifier,
      if la = CH_DQUOTE then ADVANCE 540 else
      if la = CH_QUOTE then ADVANCE 531 else
      if la = CH_8 then ADVANCE 812 else
      if la = CH_R then ADVANCE 815 else
      if la = CH_BACKSLASH then ADVANCE 286 else
      if la = CH_i then ADVANCE 1125 else
      if mozcpp_in_identifier la then ADVANCE 1152 else END_STATE)"

definition mozcpp_lex_806 :: "bool \<Rightarrow> codepoint \<Rightarrow> lex_case" where
  "mozcpp_lex_806 eof la = (Some mozcpp_sym_identifier,
      if la = CH_DQUOTE then ADVANCE 540 else
      if la = CH_8 then ADVANCE 813 else
      if la = CH_R then ADVANCE 815 else
      if la = CH_BACKSLASH then ADVANCE 286 else
      if mozcpp_in_identifier la then ADVANCE 1152 else END_STATE)"

definition mozcpp_lex_807 :: "bool \<Rightarrow> codepoint \<Rightarrow> lex_case" where
  "mozcpp_lex_807 eof la = (Some mozcpp_sym_identifier,
      if la = CH_DQUOTE then ADVANCE 540 else
      if la = CH_8 then ADVANCE 814 else
      if la = CH_BACKSLASH then ADVANCE 286 else
      if la = CH_i then ADVANCE 1125 else
      if mozcpp_in_identifier la then ADVANCE 1152 else END_STATE)"

definition mozcpp_lex_808 :: "bool \<Rightarrow> codepoint \<Rightarrow> lex_case" where
  "mozcpp_lex_808 eof la = (Some mozcpp_sym_identifier,
      if la = CH_DQUOTE then ADVANCE 540 else
      if la = CH_8 then ADVANCE 814 else
      if la = CH_BACKSLASH then ADVANCE 286 else
      if mozcpp_in_identifier la then ADVANCE 1152 else END_STATE)"

definition mozcpp_lex_809 :: "bool \<Rightarrow> codepoint \<Rightarrow> lex_case" where
  "mozcpp_lex_809 eof la = (Some mozcpp_sym_identifier,
      if la = CH_DQUOTE then ADVANCE 1165 else
      if la = CH_E then ADVANCE 1032 else
      if la = CH_BACKSLASH then ADVANCE 286 else
      if mozcpp_in_identifier la then ADVANCE 1152 else END_STATE)"

definition mozcpp_lex_810 :: "bool \<Rightarrow> codepoint \<Rightarrow> lex_case" where
  "mozcpp_lex_810 eof la = (Some mozcpp_sym_identifier,
      if la = CH_DQUOTE then ADVANCE 1165 else
      if la = CH_BACKSLASH then ADVANCE 286 else
      if mozcpp_in_identifier la then ADVANCE 1152 else END_STATE)"

definition mozcpp_lex_811 :: "bool \<Rightarrow> codepoint \<Rightarrow> lex_case" where
  "mozcpp_lex_811 eof la = (Some mozcpp_sym_identifier,
      if la = CH_DQUOTE then ADVANCE 1167 else
      if la = CH_BACKSLASH then ADVANCE 286 else
      if mozcpp_in_identifier la then ADVANCE 1152 else END_STATE)"

definition mozcpp_lex_812 :: "bool \<Rightarrow> codepoint \<Rightarrow> lex_case" where
  "mozcpp_lex_812 eof la = (Some mozcpp_sym_identifier,
      if la = CH_DQUOTE then ADVANCE 542 else
      if la = CH_QUOTE then ADVANCE 533 else
      if la = CH_R then ADVANCE 816 else
      if la = CH_BACKSLASH then ADVANCE 286 else
      if mozcpp_in_identifier la then ADVANCE 1152 else END_STATE)"

definition mozcpp_lex_813 :: "bool \<Rightarrow> codepoint \<Rightarrow> lex_case" where
  "mozcpp_lex_813 eof la = (Some mozcpp_sym_identifier,
      if la = CH_DQUOTE then ADVANCE 542 else
      if la = CH_R then ADVANCE 816 else
      if la = CH_BACKSLASH then ADVANCE 286 else
      if mozcpp_in_identifier la then ADVANCE 1152 else END_STATE)"

definition mozcpp_lex_814 :: "bool \<Rightarrow> codepoint \<Rightarrow> lex_case" where
  "mozcpp_lex_814 eof la = (Some mozcpp_sym_identifier,
      if la = CH_DQUOTE then ADVANCE 542 else
      if la = CH_BACKSLASH then ADVANCE 286 else
      if mozcpp_in_identifier la then ADVANCE 1152 else END_STATE)"

definition mozcpp_lex_815 :: "bool \<Rightarrow> codepoint \<Rightarrow> lex_case" where
  "mozcpp_lex_815 eof la = (Some mozcpp_sym_identifier,
      if la = CH_DQUOTE then ADVANCE 1166 else
      if la = CH_BACKSLASH then ADVANCE 286 else
      if mozcpp_in_identifier la then ADVANCE 1152 else END_STATE)"

definition mozcpp_lex_816 :: "bool \<Rightarrow> codepoint \<Rightarrow> lex_case" where
  "mozcpp_lex_816 eof la = (Some mozcpp_sym_identifier,
      if la = CH_DQUOTE then ADVANCE 1168 else
      if la = CH_BACKSLASH then ADVANCE 286 else
      if mozcpp_in_identifier la then ADVANCE 1152 else END_STATE)"

definition mozcpp_lex_817 :: "bool \<Rightarrow> codepoint \<Rightarrow> lex_case" where
  "mozcpp_lex_817 eof la = (Some mozcpp_sym_identifier,
      if la = CH_QUOTE then ADVANCE 530 else
      if la = CH_BACKSLASH then ADVANCE 286 else
      if mozcpp_in_identifier la then ADVANCE 1152 else END_STATE)"

definition mozcpp_lex_818 :: "bool \<Rightarrow> codepoint \<Rightarrow> lex_case" where
  "mozcpp_lex_818 eof la = (Some mozcpp_sym_identifier,
      if la = CH_QUOTE then ADVANCE 532 else
      if la = CH_BACKSLASH then ADVANCE 286 else
      if mozcpp_in_identifier la then ADVANCE 1152 else END_STATE)"

definition mozcpp_lex_819 :: "bool \<Rightarrow> codepoint \<Rightarrow> lex_case" where
  "mozcpp_lex_819 eof la = (Some mozcpp_sym_identifier,
      if la = CH_QUOTE then ADVANCE 531 else
      if la = CH_8 then ADVANCE 820 else
      if la = CH_BACKSLASH then ADVANCE 286 else
      if mozcpp_in_identifier la then ADVANCE 1152 else END_STATE)"

definition mozcpp_lex_820 :: "bool \<Rightarrow> codepoint \<Rightarrow> lex_case" where
  "mozcpp_lex_820 eof la = (Some mozcpp_sym_identifier,
      if la = CH_QUOTE then ADVANCE 533 else
      if la = CH_BACKSLASH then ADVANCE 286 else
      if mozcpp_in_identifier la then ADVANCE 1152 else END_STATE)"

definition mozcpp_lex_821 :: "bool \<Rightarrow> codepoint \<Rightarrow> lex_case" where
  "mozcpp_lex_821 eof la = (Some mozcpp_sym_identifier,
      case ADVANCE_MAP [(CH_1, 829), (CH_3, 824), (CH_6, 827), (CH_8, 1078), (CH_BACKSLASH, 286),
        (CH_UNDERSCORE, 1105), (CH_m, 1093), (CH_p, 1144)] la of Some st \<Rightarrow> ADVANCE st
        | None \<Rightarrow> (
      if mozcpp_in_identifier la then ADVANCE 1152 else END_STATE))"

definition mozcpp_lex_822 :: "bool \<Rightarrow> codepoint \<Rightarrow> lex_case" where
  "mozcpp_lex_822 eof la = (Some mozcpp_sym_identifier,
      if la = CH_1 then ADVANCE 829 else
      if la = CH_3 then ADVANCE 824 else
      if la = CH_6 then ADVANCE 827 else
      if la = CH_8 then ADVANCE 1078 else
      if la = CH_BACKSLASH then ADVANCE 286 else
      if mozcpp_in_identifier la then ADVANCE 1152 else END_STATE)"

definition mozcpp_lex_823 :: "bool \<Rightarrow> codepoint \<Rightarrow> lex_case" where
  "mozcpp_lex_823 eof la = (Some mozcpp_sym_identifier,
      if la = CH_2 then ADVANCE 490 else
      if la = CH_BACKSLASH then ADVANCE 286 else
      if mozcpp_in_identifier la then ADVANCE 1152 else END_STATE)"

definition mozcpp_lex_824 :: "bool \<Rightarrow> codepoint \<Rightarrow> lex_case" where
  "mozcpp_lex_824 eof la = (Some mozcpp_sym_identifier,
      if la = CH_2 then ADVANCE 1078 else
      if la = CH_BACKSLASH then ADVANCE 286 else
      if mozcpp_in_identifier la then ADVANCE 1152 else END_STATE)"

definition mozcpp_lex_825 :: "bool \<Rightarrow> codepoint \<Rightarrow> lex_case" where
  "mozcpp_lex_825 eof la = (Some mozcpp_sym_identifier,
      if la = CH_3 then ADVANCE 823 else
      if la = CH_6 then ADVANCE 826 else
      if la = CH_S then ADVANCE 934 else
      if la = CH_U then ADVANCE 969 else
      if la = CH_BACKSLASH then ADVANCE 286 else
      if mozcpp_in_identifier la then ADVANCE 1152 else END_STATE)"

definition mozcpp_lex_826 :: "bool \<Rightarrow> codepoint \<Rightarrow> lex_case" where
  "mozcpp_lex_826 eof la = (Some mozcpp_sym_identifier,
      if la = CH_4 then ADVANCE 490 else
      if la = CH_BACKSLASH then ADVANCE 286 else
      if mozcpp_in_identifier la then ADVANCE 1152 else END_STATE)"

definition mozcpp_lex_827 :: "bool \<Rightarrow> codepoint \<Rightarrow> lex_case" where
  "mozcpp_lex_827 eof la = (Some mozcpp_sym_identifier,
      if la = CH_4 then ADVANCE 1078 else
      if la = CH_BACKSLASH then ADVANCE 286 else
      if mozcpp_in_identifier la then ADVANCE 1152 else END_STATE)"

definition mozcpp_lex_828 :: "bool \<Rightarrow> codepoint \<Rightarrow> lex_case" where
  "mozcpp_lex_828 eof la = (Some mozcpp_sym_identifier,
      if la = CH_6 then ADVANCE 490 else
      if la = CH_BACKSLASH then ADVANCE 286 else
      if mozcpp_in_identifier la then ADVANCE 1152 else END_STATE)"

definition mozcpp_lex_829 :: "bool \<Rightarrow> codepoint \<Rightarrow> lex_case" where
  "mozcpp_lex_829 eof la = (Some mozcpp_sym_identifier,
      if la = CH_6 then ADVANCE 1078 else
      if la = CH_BACKSLASH then ADVANCE 286 else
      if mozcpp_in_identifier la then ADVANCE 1152 else END_STATE)"

definition mozcpp_lex_830 :: "bool \<Rightarrow> codepoint \<Rightarrow> lex_case" where
  "mozcpp_lex_830 eof la = (Some mozcpp_sym_identifier,
      case ADVANCE_MAP [(CH_A, 868), (CH_B, 930), (CH_C, 977), (CH_D, 869), (CH_E, 962), (CH_F,
        932), (CH_G, 886), (CH_H, 1002), (CH_I, 878), (CH_K, 893), (CH_L, 982), (CH_M, 890),
        (CH_P, 844), (CH_R, 898), (CH_S, 1072), (CH_W, 935), (CH_BACKSLASH, 286)] la of Some st
        \<Rightarrow> ADVANCE st | None \<Rightarrow> (
      if mozcpp_in_identifier la then ADVANCE 1152 else END_STATE))"

definition mozcpp_lex_831 :: "bool \<Rightarrow> codepoint \<Rightarrow> lex_case" where
  "mozcpp_lex_831 eof la = (Some mozcpp_sym_identifier,
      if la = CH_A then ADVANCE 955 else
      if la = CH_BACKSLASH then ADVANCE 286 else
      if mozcpp_in_identifier la then ADVANCE 1152 else END_STATE)"

definition mozcpp_lex_832 :: "bool \<Rightarrow> codepoint \<Rightarrow> lex_case" where
  "mozcpp_lex_832 eof la = (Some mozcpp_sym_identifier,
      if la = CH_A then ADVANCE 490 else
      if la = CH_BACKSLASH then ADVANCE 286 else
      if mozcpp_in_identifier la then ADVANCE 1152 else END_STATE)"

definition mozcpp_lex_833 :: "bool \<Rightarrow> codepoint \<Rightarrow> lex_case" where
  "mozcpp_lex_833 eof la = (Some mozcpp_sym_identifier,
      if la = CH_A then ADVANCE 1006 else
      if la = CH_BACKSLASH then ADVANCE 286 else
      if mozcpp_in_identifier la then ADVANCE 1152 else END_STATE)"

definition mozcpp_lex_834 :: "bool \<Rightarrow> codepoint \<Rightarrow> lex_case" where
  "mozcpp_lex_834 eof la = (Some mozcpp_sym_identifier,
      case ADVANCE_MAP [(CH_A, 591), (CH_B, 649), (CH_C, 695), (CH_D, 592), (CH_E, 681), (CH_F,
        651), (CH_G, 606), (CH_H, 717), (CH_I, 598), (CH_K, 613), (CH_L, 701), (CH_M, 610),
        (CH_P, 575), (CH_R, 618), (CH_S, 783), (CH_W, 655), (CH_BACKSLASH, 286)] la of Some st
        \<Rightarrow> ADVANCE st | None \<Rightarrow> (
      if (CH_0 \<le> la \<and> la \<le> CH_9) \<or> (CH_J \<le> la \<and> la \<le> CH_Z) \<or> la
        = CH_UNDERSCORE then ADVANCE 792 else
      if mozcpp_in_identifier la then ADVANCE 1152 else END_STATE))"

definition mozcpp_lex_835 :: "bool \<Rightarrow> codepoint \<Rightarrow> lex_case" where
  "mozcpp_lex_835 eof la = (Some mozcpp_sym_identifier,
      if la = CH_A then ADVANCE 944 else
      if la = CH_L then ADVANCE 986 else
      if la = CH_BACKSLASH then ADVANCE 286 else
      if mozcpp_in_identifier la then ADVANCE 1152 else END_STATE)"

definition mozcpp_lex_836 :: "bool \<Rightarrow> codepoint \<Rightarrow> lex_case" where
  "mozcpp_lex_836 eof la = (Some mozcpp_sym_identifier,
      if la = CH_A then ADVANCE 944 else
      if la = CH_BACKSLASH then ADVANCE 286 else
      if mozcpp_in_identifier la then ADVANCE 1152 else END_STATE)"

definition mozcpp_lex_837 :: "bool \<Rightarrow> codepoint \<Rightarrow> lex_case" where
  "mozcpp_lex_837 eof la = (Some mozcpp_sym_identifier,
      if la = CH_A then ADVANCE 910 else
      if la = CH_BACKSLASH then ADVANCE 286 else
      if mozcpp_in_identifier la then ADVANCE 1152 else END_STATE)"

definition mozcpp_lex_838 :: "bool \<Rightarrow> codepoint \<Rightarrow> lex_case" where
  "mozcpp_lex_838 eof la = (Some mozcpp_sym_identifier,
      if la = CH_A then ADVANCE 945 else
      if la = CH_K then ADVANCE 894 else
      if la = CH_BACKSLASH then ADVANCE 286 else
      if mozcpp_in_identifier la then ADVANCE 1152 else END_STATE)"

definition mozcpp_lex_839 :: "bool \<Rightarrow> codepoint \<Rightarrow> lex_case" where
  "mozcpp_lex_839 eof la = (Some mozcpp_sym_identifier,
      if la = CH_A then ADVANCE 663 else
      if la = CH_L then ADVANCE 703 else
      if la = CH_BACKSLASH then ADVANCE 286 else
      if (CH_0 \<le> la \<and> la \<le> CH_9) \<or> (CH_B \<le> la \<and> la \<le> CH_Z) \<or> la
        = CH_UNDERSCORE then ADVANCE 792 else
      if mozcpp_in_identifier la then ADVANCE 1152 else END_STATE)"

definition mozcpp_lex_840 :: "bool \<Rightarrow> codepoint \<Rightarrow> lex_case" where
  "mozcpp_lex_840 eof la = (Some mozcpp_sym_identifier,
      if la = CH_A then ADVANCE 960 else
      if la = CH_C then ADVANCE 928 else
      if la = CH_G then ADVANCE 1017 else
      if la = CH_O then ADVANCE 963 else
      if la = CH_P then ADVANCE 848 else
      if la = CH_R then ADVANCE 899 else
      if la = CH_BACKSLASH then ADVANCE 286 else
      if mozcpp_in_identifier la then ADVANCE 1152 else END_STATE)"

definition mozcpp_lex_841 :: "bool \<Rightarrow> codepoint \<Rightarrow> lex_case" where
  "mozcpp_lex_841 eof la = (Some mozcpp_sym_identifier,
      if la = CH_A then ADVANCE 1013 else
      if la = CH_BACKSLASH then ADVANCE 286 else
      if mozcpp_in_identifier la then ADVANCE 1152 else END_STATE)"

definition mozcpp_lex_842 :: "bool \<Rightarrow> codepoint \<Rightarrow> lex_case" where
  "mozcpp_lex_842 eof la = (Some mozcpp_sym_identifier,
      if la = CH_A then ADVANCE 959 else
      if la = CH_BACKSLASH then ADVANCE 286 else
      if mozcpp_in_identifier la then ADVANCE 1152 else END_STATE)"

definition mozcpp_lex_843 :: "bool \<Rightarrow> codepoint \<Rightarrow> lex_case" where
  "mozcpp_lex_843 eof la = (Some mozcpp_sym_identifier,
      if la = CH_A then ADVANCE 1043 else
      if la = CH_BACKSLASH then ADVANCE 286 else
      if mozcpp_in_identifier la then ADVANCE 1152 else END_STATE)"

definition mozcpp_lex_844 :: "bool \<Rightarrow> codepoint \<Rightarrow> lex_case" where
  "mozcpp_lex_844 eof la = (Some mozcpp_sym_identifier,
      if la = CH_A then ADVANCE 952 else
      if la = CH_E then ADVANCE 959 else
      if la = CH_BACKSLASH then ADVANCE 286 else
      if mozcpp_in_identifier la then ADVANCE 1152 else END_STATE)"

definition mozcpp_lex_845 :: "bool \<Rightarrow> codepoint \<Rightarrow> lex_case" where
  "mozcpp_lex_845 eof la = (Some mozcpp_sym_identifier,
      if la = CH_A then ADVANCE 946 else
      if la = CH_BACKSLASH then ADVANCE 286 else
      if mozcpp_in_identifier la then ADVANCE 1152 else END_STATE)"

definition mozcpp_lex_846 :: "bool \<Rightarrow> codepoint \<Rightarrow> lex_case" where
  "mozcpp_lex_846 eof la = (Some mozcpp_sym_identifier,
      if la = CH_A then ADVANCE 947 else
      if la = CH_BACKSLASH then ADVANCE 286 else
      if mozcpp_in_identifier la then ADVANCE 1152 else END_STATE)"

definition mozcpp_lex_847 :: "bool \<Rightarrow> codepoint \<Rightarrow> lex_case" where
  "mozcpp_lex_847 eof la = (Some mozcpp_sym_identifier,
      if la = CH_A then ADVANCE 958 else
      if la = CH_BACKSLASH then ADVANCE 286 else
      if mozcpp_in_identifier la then ADVANCE 1152 else END_STATE)"

definition mozcpp_lex_848 :: "bool \<Rightarrow> codepoint \<Rightarrow> lex_case" where
  "mozcpp_lex_848 eof la = (Some mozcpp_sym_identifier,
      case ADVANCE_MAP [(CH_A, 1021), (CH_B, 1003), (CH_C, 975), (CH_D, 1067), (CH_H, 847),
        (CH_I, 968), (CH_L, 999), (CH_S, 1047), (CH_T, 1029), (CH_W, 981), (CH_BACKSLASH, 286)]
        la of Some st \<Rightarrow> ADVANCE st | None \<Rightarrow> (
      if mozcpp_in_identifier la then ADVANCE 1152 else END_STATE))"

definition mozcpp_lex_849 :: "bool \<Rightarrow> codepoint \<Rightarrow> lex_case" where
  "mozcpp_lex_849 eof la = (Some mozcpp_sym_identifier,
      if la = CH_A then ADVANCE 1021 else
      if la = CH_BACKSLASH then ADVANCE 286 else
      if mozcpp_in_identifier la then ADVANCE 1152 else END_STATE)"

definition mozcpp_lex_850 :: "bool \<Rightarrow> codepoint \<Rightarrow> lex_case" where
  "mozcpp_lex_850 eof la = (Some mozcpp_sym_identifier,
      if la = CH_A then ADVANCE 1049 else
      if la = CH_BACKSLASH then ADVANCE 286 else
      if mozcpp_in_identifier la then ADVANCE 1152 else END_STATE)"

definition mozcpp_lex_851 :: "bool \<Rightarrow> codepoint \<Rightarrow> lex_case" where
  "mozcpp_lex_851 eof la = (Some mozcpp_sym_identifier,
      if la = CH_A then ADVANCE 973 else
      if la = CH_BACKSLASH then ADVANCE 286 else
      if mozcpp_in_identifier la then ADVANCE 1152 else END_STATE)"

definition mozcpp_lex_852 :: "bool \<Rightarrow> codepoint \<Rightarrow> lex_case" where
  "mozcpp_lex_852 eof la = (Some mozcpp_sym_identifier,
      if la = CH_A then ADVANCE 1053 else
      if la = CH_BACKSLASH then ADVANCE 286 else
      if mozcpp_in_identifier la then ADVANCE 1152 else END_STATE)"

definition mozcpp_lex_853 :: "bool \<Rightarrow> codepoint \<Rightarrow> lex_case" where
  "mozcpp_lex_853 eof la = (Some mozcpp_sym_identifier,
      if la = CH_A then ADVANCE 875 else
      if la = CH_BACKSLASH then ADVANCE 286 else
      if mozcpp_in_identifier la then ADVANCE 1152 else END_STATE)"

definition mozcpp_lex_854 :: "bool \<Rightarrow> codepoint \<Rightarrow> lex_case" where
  "mozcpp_lex_854 eof la = (Some mozcpp_sym_identifier,
      case ADVANCE_MAP [(CH_B, 985), (CH_C, 916), (CH_D, 1066), (CH_F, 950), (CH_H, 838), (CH_I,
        961), (CH_L, 876), (CH_O, 940), (CH_S, 922), (CH_T, 856), (CH_U, 864), (CH_V, 992),
        (CH_W, 866), (CH_BACKSLASH, 286)] la of Some st \<Rightarrow> ADVANCE st | None
        \<Rightarrow> (
      if mozcpp_in_identifier la then ADVANCE 1152 else END_STATE))"

definition mozcpp_lex_855 :: "bool \<Rightarrow> codepoint \<Rightarrow> lex_case" where
  "mozcpp_lex_855 eof la = (Some mozcpp_sym_identifier,
      if la = CH_B then ADVANCE 1069 else
      if la = CH_C then ADVANCE 917 else
      if la = CH_R then ADVANCE 1060 else
      if la = CH_BACKSLASH then ADVANCE 286 else
      if mozcpp_in_identifier la then ADVANCE 1152 else END_STATE)"

definition mozcpp_lex_856 :: "bool \<Rightarrow> codepoint \<Rightarrow> lex_case" where
  "mozcpp_lex_856 eof la = (Some mozcpp_sym_identifier,
      if la = CH_B then ADVANCE 1069 else
      if la = CH_C then ADVANCE 917 else
      if la = CH_S then ADVANCE 1047 else
      if la = CH_BACKSLASH then ADVANCE 286 else
      if mozcpp_in_identifier la then ADVANCE 1152 else END_STATE)"

definition mozcpp_lex_857 :: "bool \<Rightarrow> codepoint \<Rightarrow> lex_case" where
  "mozcpp_lex_857 eof la = (Some mozcpp_sym_identifier,
      if la = CH_B then ADVANCE 1069 else
      if la = CH_C then ADVANCE 917 else
      if la = CH_BACKSLASH then ADVANCE 286 else
      if mozcpp_in_identifier la then ADVANCE 1152 else END_STATE)"

definition mozcpp_lex_858 :: "bool \<Rightarrow> codepoint \<Rightarrow> lex_case" where
  "mozcpp_lex_858 eof la = (Some mozcpp_sym_identifier,
      if la = CH_B then ADVANCE 942 else
      if la = CH_BACKSLASH then ADVANCE 286 else
      if mozcpp_in_identifier la then ADVANCE 1152 else END_STATE)"

definition mozcpp_lex_859 :: "bool \<Rightarrow> codepoint \<Rightarrow> lex_case" where
  "mozcpp_lex_859 eof la = (Some mozcpp_sym_identifier,
      case ADVANCE_MAP [(CH_B, 699), (CH_C, 635), (CH_D, 778), (CH_F, 669), (CH_H, 572), (CH_I,
        680), (CH_L, 596), (CH_O, 656), (CH_S, 641), (CH_T, 586), (CH_U, 589), (CH_V, 708),
        (CH_W, 590), (CH_BACKSLASH, 286)] la of Some st \<Rightarrow> ADVANCE st | None
        \<Rightarrow> (
      if (CH_0 \<le> la \<and> la \<le> CH_9) \<or> (CH_A \<le> la \<and> la \<le> CH_Z) \<or> la
        = CH_UNDERSCORE then ADVANCE 792 else
      if mozcpp_in_identifier la then ADVANCE 1152 else END_STATE))"

definition mozcpp_lex_860 :: "bool \<Rightarrow> codepoint \<Rightarrow> lex_case" where
  "mozcpp_lex_860 eof la = (Some mozcpp_sym_identifier,
      if la = CH_B then ADVANCE 780 else
      if la = CH_C then ADVANCE 636 else
      if la = CH_R then ADVANCE 773 else
      if la = CH_BACKSLASH then ADVANCE 286 else
      if (CH_0 \<le> la \<and> la \<le> CH_9) \<or> (CH_A \<le> la \<and> la \<le> CH_Z) \<or> la
        = CH_UNDERSCORE then ADVANCE 792 else
      if mozcpp_in_identifier la then ADVANCE 1152 else END_STATE)"

definition mozcpp_lex_861 :: "bool \<Rightarrow> codepoint \<Rightarrow> lex_case" where
  "mozcpp_lex_861 eof la = (Some mozcpp_sym_identifier,
      if la = CH_B then ADVANCE 846 else
      if la = CH_BACKSLASH then ADVANCE 286 else
      if mozcpp_in_identifier la then ADVANCE 1152 else END_STATE)"

definition mozcpp_lex_862 :: "bool \<Rightarrow> codepoint \<Rightarrow> lex_case" where
  "mozcpp_lex_862 eof la = (Some mozcpp_sym_identifier,
      if la = CH_C then ADVANCE 917 else
      if la = CH_H then ADVANCE 841 else
      if la = CH_O then ADVANCE 953 else
      if la = CH_BACKSLASH then ADVANCE 286 else
      if mozcpp_in_identifier la then ADVANCE 1152 else END_STATE)"

definition mozcpp_lex_863 :: "bool \<Rightarrow> codepoint \<Rightarrow> lex_case" where
  "mozcpp_lex_863 eof la = (Some mozcpp_sym_identifier,
      if la = CH_C then ADVANCE 917 else
      if la = CH_H then ADVANCE 845 else
      if la = CH_I then ADVANCE 961 else
      if la = CH_L then ADVANCE 989 else
      if la = CH_N then ADVANCE 931 else
      if la = CH_S then ADVANCE 923 else
      if la = CH_BACKSLASH then ADVANCE 286 else
      if mozcpp_in_identifier la then ADVANCE 1152 else END_STATE)"

definition mozcpp_lex_864 :: "bool \<Rightarrow> codepoint \<Rightarrow> lex_case" where
  "mozcpp_lex_864 eof la = (Some mozcpp_sym_identifier,
      if la = CH_C then ADVANCE 917 else
      if la = CH_H then ADVANCE 845 else
      if la = CH_I then ADVANCE 961 else
      if la = CH_L then ADVANCE 997 else
      if la = CH_S then ADVANCE 924 else
      if la = CH_BACKSLASH then ADVANCE 286 else
      if mozcpp_in_identifier la then ADVANCE 1152 else END_STATE)"

definition mozcpp_lex_865 :: "bool \<Rightarrow> codepoint \<Rightarrow> lex_case" where
  "mozcpp_lex_865 eof la = (Some mozcpp_sym_identifier,
      if la = CH_C then ADVANCE 917 else
      if la = CH_O then ADVANCE 1016 else
      if la = CH_P then ADVANCE 849 else
      if la = CH_BACKSLASH then ADVANCE 286 else
      if mozcpp_in_identifier la then ADVANCE 1152 else END_STATE)"

definition mozcpp_lex_866 :: "bool \<Rightarrow> codepoint \<Rightarrow> lex_case" where
  "mozcpp_lex_866 eof la = (Some mozcpp_sym_identifier,
      if la = CH_C then ADVANCE 917 else
      if la = CH_O then ADVANCE 1016 else
      if la = CH_S then ADVANCE 1047 else
      if la = CH_BACKSLASH then ADVANCE 286 else
      if mozcpp_in_identifier la then ADVANCE 1152 else END_STATE)"

definition mozcpp_lex_867 :: "bool \<Rightarrow> codepoint \<Rightarrow> lex_case" where
  "mozcpp_lex_867 eof la = (Some mozcpp_sym_identifier,
      if la = CH_C then ADVANCE 1074 else
      if la = CH_E then ADVANCE 1014 else
      if la = CH_H then ADVANCE 1000 else
      if la = CH_I then ADVANCE 1073 else
      if la = CH_S then ADVANCE 926 else
      if la = CH_BACKSLASH then ADVANCE 286 else
      if mozcpp_in_identifier la then ADVANCE 1152 else END_STATE)"

definition mozcpp_lex_868 :: "bool \<Rightarrow> codepoint \<Rightarrow> lex_case" where
  "mozcpp_lex_868 eof la = (Some mozcpp_sym_identifier,
      if la = CH_C then ADVANCE 877 else
      if la = CH_L then ADVANCE 909 else
      if la = CH_N then ADVANCE 884 else
      if la = CH_BACKSLASH then ADVANCE 286 else
      if mozcpp_in_identifier la then ADVANCE 1152 else END_STATE)"

definition mozcpp_lex_869 :: "bool \<Rightarrow> codepoint \<Rightarrow> lex_case" where
  "mozcpp_lex_869 eof la = (Some mozcpp_sym_identifier,
      if la = CH_C then ADVANCE 490 else
      if la = CH_D then ADVANCE 900 else
      if la = CH_E then ADVANCE 1028 else
      if la = CH_R then ADVANCE 978 else
      if la = CH_W then ADVANCE 1006 else
      if la = CH_BACKSLASH then ADVANCE 286 else
      if mozcpp_in_identifier la then ADVANCE 1152 else END_STATE)"

definition mozcpp_lex_870 :: "bool \<Rightarrow> codepoint \<Rightarrow> lex_case" where
  "mozcpp_lex_870 eof la = (Some mozcpp_sym_identifier,
      if la = CH_C then ADVANCE 490 else
      if la = CH_BACKSLASH then ADVANCE 286 else
      if mozcpp_in_identifier la then ADVANCE 1152 else END_STATE)"

definition mozcpp_lex_871 :: "bool \<Rightarrow> codepoint \<Rightarrow> lex_case" where
  "mozcpp_lex_871 eof la = (Some mozcpp_sym_identifier,
      if la = CH_C then ADVANCE 943 else
      if la = CH_BACKSLASH then ADVANCE 286 else
      if mozcpp_in_identifier la then ADVANCE 1152 else END_STATE)"

definition mozcpp_lex_872 :: "bool \<Rightarrow> codepoint \<Rightarrow> lex_case" where
  "mozcpp_lex_872 eof la = (Some mozcpp_sym_identifier,
      if la = CH_C then ADVANCE 636 else
      if la = CH_H then ADVANCE 573 else
      if la = CH_O then ADVANCE 672 else
      if la = CH_BACKSLASH then ADVANCE 286 else
      if (CH_0 \<le> la \<and> la \<le> CH_9) \<or> (CH_A \<le> la \<and> la \<le> CH_Z) \<or> la
        = CH_UNDERSCORE then ADVANCE 792 else
      if mozcpp_in_identifier la then ADVANCE 1152 else END_STATE)"

definition mozcpp_lex_873 :: "bool \<Rightarrow> codepoint \<Rightarrow> lex_case" where
  "mozcpp_lex_873 eof la = (Some mozcpp_sym_identifier,
      if la = CH_C then ADVANCE 636 else
      if la = CH_O then ADVANCE 729 else
      if la = CH_P then ADVANCE 580 else
      if la = CH_BACKSLASH then ADVANCE 286 else
      if (CH_0 \<le> la \<and> la \<le> CH_9) \<or> (CH_A \<le> la \<and> la \<le> CH_Z) \<or> la
        = CH_UNDERSCORE then ADVANCE 792 else
      if mozcpp_in_identifier la then ADVANCE 1152 else END_STATE)"

definition mozcpp_lex_874 :: "bool \<Rightarrow> codepoint \<Rightarrow> lex_case" where
  "mozcpp_lex_874 eof la = (Some mozcpp_sym_identifier,
      if la = CH_C then ADVANCE 785 else
      if la = CH_E then ADVANCE 727 else
      if la = CH_H then ADVANCE 715 else
      if la = CH_I then ADVANCE 784 else
      if la = CH_S then ADVANCE 645 else
      if la = CH_BACKSLASH then ADVANCE 286 else
      if (CH_0 \<le> la \<and> la \<le> CH_9) \<or> (CH_A \<le> la \<and> la \<le> CH_Z) \<or> la
        = CH_UNDERSCORE then ADVANCE 792 else
      if mozcpp_in_identifier la then ADVANCE 1152 else END_STATE)"

definition mozcpp_lex_875 :: "bool \<Rightarrow> codepoint \<Rightarrow> lex_case" where
  "mozcpp_lex_875 eof la = (Some mozcpp_sym_identifier,
      if la = CH_C then ADVANCE 889 else
      if la = CH_BACKSLASH then ADVANCE 286 else
      if mozcpp_in_identifier la then ADVANCE 1152 else END_STATE)"

definition mozcpp_lex_876 :: "bool \<Rightarrow> codepoint \<Rightarrow> lex_case" where
  "mozcpp_lex_876 eof la = (Some mozcpp_sym_identifier,
      if la = CH_C then ADVANCE 929 else
      if la = CH_O then ADVANCE 966 else
      if la = CH_BACKSLASH then ADVANCE 286 else
      if mozcpp_in_identifier la then ADVANCE 1152 else END_STATE)"

definition mozcpp_lex_877 :: "bool \<Rightarrow> codepoint \<Rightarrow> lex_case" where
  "mozcpp_lex_877 eof la = (Some mozcpp_sym_identifier,
      if la = CH_C then ADVANCE 901 else
      if la = CH_BACKSLASH then ADVANCE 286 else
      if mozcpp_in_identifier la then ADVANCE 1152 else END_STATE)"

definition mozcpp_lex_878 :: "bool \<Rightarrow> codepoint \<Rightarrow> lex_case" where
  "mozcpp_lex_878 eof la = (Some mozcpp_sym_identifier,
      if la = CH_C then ADVANCE 991 else
      if la = CH_N then ADVANCE 1034 else
      if la = CH_BACKSLASH then ADVANCE 286 else
      if mozcpp_in_identifier la then ADVANCE 1152 else END_STATE)"

definition mozcpp_lex_879 :: "bool \<Rightarrow> codepoint \<Rightarrow> lex_case" where
  "mozcpp_lex_879 eof la = (Some mozcpp_sym_identifier,
      if la = CH_C then ADVANCE 902 else
      if la = CH_BACKSLASH then ADVANCE 286 else
      if mozcpp_in_identifier la then ADVANCE 1152 else END_STATE)"

definition mozcpp_lex_880 :: "bool \<Rightarrow> codepoint \<Rightarrow> lex_case" where
  "mozcpp_lex_880 eof la = (Some mozcpp_sym_identifier,
      if la = CH_C then ADVANCE 995 else
      if la = CH_BACKSLASH then ADVANCE 286 else
      if mozcpp_in_identifier la then ADVANCE 1152 else END_STATE)"

definition mozcpp_lex_881 :: "bool \<Rightarrow> codepoint \<Rightarrow> lex_case" where
  "mozcpp_lex_881 eof la = (Some mozcpp_sym_identifier,
      if la = CH_C then ADVANCE 846 else
      if la = CH_BACKSLASH then ADVANCE 286 else
      if mozcpp_in_identifier la then ADVANCE 1152 else END_STATE)"

definition mozcpp_lex_882 :: "bool \<Rightarrow> codepoint \<Rightarrow> lex_case" where
  "mozcpp_lex_882 eof la = (Some mozcpp_sym_identifier,
      if la = CH_D then ADVANCE 490 else
      if la = CH_BACKSLASH then ADVANCE 286 else
      if mozcpp_in_identifier la then ADVANCE 1152 else END_STATE)"

definition mozcpp_lex_883 :: "bool \<Rightarrow> codepoint \<Rightarrow> lex_case" where
  "mozcpp_lex_883 eof la = (Some mozcpp_sym_identifier,
      if la = CH_D then ADVANCE 486 else
      if la = CH_BACKSLASH then ADVANCE 286 else
      if mozcpp_in_identifier la then ADVANCE 1152 else END_STATE)"

definition mozcpp_lex_884 :: "bool \<Rightarrow> codepoint \<Rightarrow> lex_case" where
  "mozcpp_lex_884 eof la = (Some mozcpp_sym_identifier,
      if la = CH_D then ADVANCE 949 else
      if la = CH_BACKSLASH then ADVANCE 286 else
      if mozcpp_in_identifier la then ADVANCE 1152 else END_STATE)"

definition mozcpp_lex_885 :: "bool \<Rightarrow> codepoint \<Rightarrow> lex_case" where
  "mozcpp_lex_885 eof la = (Some mozcpp_sym_identifier,
      if la = CH_D then ADVANCE 1058 else
      if la = CH_N then ADVANCE 936 else
      if la = CH_BACKSLASH then ADVANCE 286 else
      if mozcpp_in_identifier la then ADVANCE 1152 else END_STATE)"

definition mozcpp_lex_886 :: "bool \<Rightarrow> codepoint \<Rightarrow> lex_case" where
  "mozcpp_lex_886 eof la = (Some mozcpp_sym_identifier,
      if la = CH_D then ADVANCE 938 else
      if la = CH_L then ADVANCE 980 else
      if la = CH_BACKSLASH then ADVANCE 286 else
      if mozcpp_in_identifier la then ADVANCE 1152 else END_STATE)"

definition mozcpp_lex_887 :: "bool \<Rightarrow> codepoint \<Rightarrow> lex_case" where
  "mozcpp_lex_887 eof la = (Some mozcpp_sym_identifier,
      if la = CH_D then ADVANCE 850 else
      if la = CH_BACKSLASH then ADVANCE 286 else
      if mozcpp_in_identifier la then ADVANCE 1152 else END_STATE)"

definition mozcpp_lex_888 :: "bool \<Rightarrow> codepoint \<Rightarrow> lex_case" where
  "mozcpp_lex_888 eof la = (Some mozcpp_sym_identifier,
      if la = CH_D then ADVANCE 907 else
      if la = CH_BACKSLASH then ADVANCE 286 else
      if mozcpp_in_identifier la then ADVANCE 1152 else END_STATE)"

definition mozcpp_lex_889 :: "bool \<Rightarrow> codepoint \<Rightarrow> lex_case" where
  "mozcpp_lex_889 eof la = (Some mozcpp_sym_identifier,
      if la = CH_E then ADVANCE 490 else
      if la = CH_BACKSLASH then ADVANCE 286 else
      if mozcpp_in_identifier la then ADVANCE 1152 else END_STATE)"

definition mozcpp_lex_890 :: "bool \<Rightarrow> codepoint \<Rightarrow> lex_case" where
  "mozcpp_lex_890 eof la = (Some mozcpp_sym_identifier,
      if la = CH_E then ADVANCE 965 else
      if la = CH_O then ADVANCE 885 else
      if la = CH_BACKSLASH then ADVANCE 286 else
      if mozcpp_in_identifier la then ADVANCE 1152 else END_STATE)"

definition mozcpp_lex_891 :: "bool \<Rightarrow> codepoint \<Rightarrow> lex_case" where
  "mozcpp_lex_891 eof la = (Some mozcpp_sym_identifier,
      if la = CH_E then ADVANCE 559 else
      if la = CH_BACKSLASH then ADVANCE 286 else
      if mozcpp_in_identifier la then ADVANCE 1152 else END_STATE)"

definition mozcpp_lex_892 :: "bool \<Rightarrow> codepoint \<Rightarrow> lex_case" where
  "mozcpp_lex_892 eof la = (Some mozcpp_sym_identifier,
      if la = CH_E then ADVANCE 561 else
      if la = CH_BACKSLASH then ADVANCE 286 else
      if mozcpp_in_identifier la then ADVANCE 1152 else END_STATE)"

definition mozcpp_lex_893 :: "bool \<Rightarrow> codepoint \<Rightarrow> lex_case" where
  "mozcpp_lex_893 eof la = (Some mozcpp_sym_identifier,
      if la = CH_E then ADVANCE 1070 else
      if la = CH_L then ADVANCE 490 else
      if la = CH_BACKSLASH then ADVANCE 286 else
      if mozcpp_in_identifier la then ADVANCE 1152 else END_STATE)"

definition mozcpp_lex_894 :: "bool \<Rightarrow> codepoint \<Rightarrow> lex_case" where
  "mozcpp_lex_894 eof la = (Some mozcpp_sym_identifier,
      if la = CH_E then ADVANCE 1070 else
      if la = CH_BACKSLASH then ADVANCE 286 else
      if mozcpp_in_identifier la then ADVANCE 1152 else END_STATE)"

definition mozcpp_lex_895 :: "bool \<Rightarrow> codepoint \<Rightarrow> lex_case" where
  "mozcpp_lex_895 eof la = (Some mozcpp_sym_identifier,
      if la = CH_E then ADVANCE 882 else
      if la = CH_BACKSLASH then ADVANCE 286 else
      if mozcpp_in_identifier la then ADVANCE 1152 else END_STATE)"

definition mozcpp_lex_896 :: "bool \<Rightarrow> codepoint \<Rightarrow> lex_case" where
  "mozcpp_lex_896 eof la = (Some mozcpp_sym_identifier,
      if la = CH_E then ADVANCE 908 else
      if la = CH_BACKSLASH then ADVANCE 286 else
      if mozcpp_in_identifier la then ADVANCE 1152 else END_STATE)"

definition mozcpp_lex_897 :: "bool \<Rightarrow> codepoint \<Rightarrow> lex_case" where
  "mozcpp_lex_897 eof la = (Some mozcpp_sym_identifier,
      if la = CH_E then ADVANCE 1079 else
      if la = CH_BACKSLASH then ADVANCE 286 else
      if mozcpp_in_identifier la then ADVANCE 1152 else END_STATE)"

definition mozcpp_lex_898 :: "bool \<Rightarrow> codepoint \<Rightarrow> lex_case" where
  "mozcpp_lex_898 eof la = (Some mozcpp_sym_identifier,
      if la = CH_E then ADVANCE 1032 else
      if la = CH_G then ADVANCE 959 else
      if la = CH_S then ADVANCE 1019 else
      if la = CH_BACKSLASH then ADVANCE 286 else
      if mozcpp_in_identifier la then ADVANCE 1152 else END_STATE)"

definition mozcpp_lex_899 :: "bool \<Rightarrow> codepoint \<Rightarrow> lex_case" where
  "mozcpp_lex_899 eof la = (Some mozcpp_sym_identifier,
      if la = CH_E then ADVANCE 1032 else
      if la = CH_BACKSLASH then ADVANCE 286 else
      if mozcpp_in_identifier la then ADVANCE 1152 else END_STATE)"

definition mozcpp_lex_900 :: "bool \<Rightarrow> codepoint \<Rightarrow> lex_case" where
  "mozcpp_lex_900 eof la = (Some mozcpp_sym_identifier,
      if la = CH_E then ADVANCE 887 else
      if la = CH_BACKSLASH then ADVANCE 286 else
      if mozcpp_in_identifier la then ADVANCE 1152 else END_STATE)"

definition mozcpp_lex_901 :: "bool \<Rightarrow> codepoint \<Rightarrow> lex_case" where
  "mozcpp_lex_901 eof la = (Some mozcpp_sym_identifier,
      if la = CH_E then ADVANCE 947 else
      if la = CH_BACKSLASH then ADVANCE 286 else
      if mozcpp_in_identifier la then ADVANCE 1152 else END_STATE)"

definition mozcpp_lex_902 :: "bool \<Rightarrow> codepoint \<Rightarrow> lex_case" where
  "mozcpp_lex_902 eof la = (Some mozcpp_sym_identifier,
      if la = CH_E then ADVANCE 1082 else
      if la = CH_BACKSLASH then ADVANCE 286 else
      if mozcpp_in_identifier la then ADVANCE 1152 else END_STATE)"

definition mozcpp_lex_903 :: "bool \<Rightarrow> codepoint \<Rightarrow> lex_case" where
  "mozcpp_lex_903 eof la = (Some mozcpp_sym_identifier,
      if la = CH_E then ADVANCE 1042 else
      if la = CH_BACKSLASH then ADVANCE 286 else
      if mozcpp_in_identifier la then ADVANCE 1152 else END_STATE)"

definition mozcpp_lex_904 :: "bool \<Rightarrow> codepoint \<Rightarrow> lex_case" where
  "mozcpp_lex_904 eof la = (Some mozcpp_sym_identifier,
      if la = CH_E then ADVANCE 1048 else
      if la = CH_BACKSLASH then ADVANCE 286 else
      if mozcpp_in_identifier la then ADVANCE 1152 else END_STATE)"

definition mozcpp_lex_905 :: "bool \<Rightarrow> codepoint \<Rightarrow> lex_case" where
  "mozcpp_lex_905 eof la = (Some mozcpp_sym_identifier,
      if la = CH_E then ADVANCE 1022 else
      if la = CH_BACKSLASH then ADVANCE 286 else
      if mozcpp_in_identifier la then ADVANCE 1152 else END_STATE)"

definition mozcpp_lex_906 :: "bool \<Rightarrow> codepoint \<Rightarrow> lex_case" where
  "mozcpp_lex_906 eof la = (Some mozcpp_sym_identifier,
      if la = CH_E then ADVANCE 972 else
      if la = CH_BACKSLASH then ADVANCE 286 else
      if mozcpp_in_identifier la then ADVANCE 1152 else END_STATE)"

definition mozcpp_lex_907 :: "bool \<Rightarrow> codepoint \<Rightarrow> lex_case" where
  "mozcpp_lex_907 eof la = (Some mozcpp_sym_identifier,
      if la = CH_E then ADVANCE 1083 else
      if la = CH_BACKSLASH then ADVANCE 286 else
      if mozcpp_in_identifier la then ADVANCE 1152 else END_STATE)"

definition mozcpp_lex_908 :: "bool \<Rightarrow> codepoint \<Rightarrow> lex_case" where
  "mozcpp_lex_908 eof la = (Some mozcpp_sym_identifier,
      if la = CH_F then ADVANCE 490 else
      if la = CH_BACKSLASH then ADVANCE 286 else
      if mozcpp_in_identifier la then ADVANCE 1152 else END_STATE)"

definition mozcpp_lex_909 :: "bool \<Rightarrow> codepoint \<Rightarrow> lex_case" where
  "mozcpp_lex_909 eof la = (Some mozcpp_sym_identifier,
      if la = CH_F then ADVANCE 1076 else
      if la = CH_BACKSLASH then ADVANCE 286 else
      if mozcpp_in_identifier la then ADVANCE 1152 else END_STATE)"

definition mozcpp_lex_910 :: "bool \<Rightarrow> codepoint \<Rightarrow> lex_case" where
  "mozcpp_lex_910 eof la = (Some mozcpp_sym_identifier,
      if la = CH_F then ADVANCE 933 else
      if la = CH_BACKSLASH then ADVANCE 286 else
      if mozcpp_in_identifier la then ADVANCE 1152 else END_STATE)"

definition mozcpp_lex_911 :: "bool \<Rightarrow> codepoint \<Rightarrow> lex_case" where
  "mozcpp_lex_911 eof la = (Some mozcpp_sym_identifier,
      if la = CH_G then ADVANCE 490 else
      if la = CH_BACKSLASH then ADVANCE 286 else
      if mozcpp_in_identifier la then ADVANCE 1152 else END_STATE)"

definition mozcpp_lex_912 :: "bool \<Rightarrow> codepoint \<Rightarrow> lex_case" where
  "mozcpp_lex_912 eof la = (Some mozcpp_sym_identifier,
      if la = CH_G then ADVANCE 486 else
      if la = CH_BACKSLASH then ADVANCE 286 else
      if mozcpp_in_identifier la then ADVANCE 1152 else END_STATE)"

definition mozcpp_lex_913 :: "bool \<Rightarrow> codepoint \<Rightarrow> lex_case" where
  "mozcpp_lex_913 eof la = (Some mozcpp_sym_identifier,
      if la = CH_G then ADVANCE 487 else
      if la = CH_BACKSLASH then ADVANCE 286 else
      if mozcpp_in_identifier la then ADVANCE 1152 else END_STATE)"

definition mozcpp_lex_914 :: "bool \<Rightarrow> codepoint \<Rightarrow> lex_case" where
  "mozcpp_lex_914 eof la = (Some mozcpp_sym_identifier,
      if la = CH_G then ADVANCE 929 else
      if la = CH_BACKSLASH then ADVANCE 286 else
      if mozcpp_in_identifier la then ADVANCE 1152 else END_STATE)"

definition mozcpp_lex_915 :: "bool \<Rightarrow> codepoint \<Rightarrow> lex_case" where
  "mozcpp_lex_915 eof la = (Some mozcpp_sym_identifier,
      if la = CH_G then ADVANCE 970 else
      if la = CH_BACKSLASH then ADVANCE 286 else
      if mozcpp_in_identifier la then ADVANCE 1152 else END_STATE)"

definition mozcpp_lex_916 :: "bool \<Rightarrow> codepoint \<Rightarrow> lex_case" where
  "mozcpp_lex_916 eof la = (Some mozcpp_sym_identifier,
      if la = CH_H then ADVANCE 841 else
      if la = CH_S then ADVANCE 1047 else
      if la = CH_T then ADVANCE 1029 else
      if la = CH_W then ADVANCE 1029 else
      if la = CH_BACKSLASH then ADVANCE 286 else
      if mozcpp_in_identifier la then ADVANCE 1152 else END_STATE)"

definition mozcpp_lex_917 :: "bool \<Rightarrow> codepoint \<Rightarrow> lex_case" where
  "mozcpp_lex_917 eof la = (Some mozcpp_sym_identifier,
      if la = CH_H then ADVANCE 841 else
      if la = CH_BACKSLASH then ADVANCE 286 else
      if mozcpp_in_identifier la then ADVANCE 1152 else END_STATE)"

definition mozcpp_lex_918 :: "bool \<Rightarrow> codepoint \<Rightarrow> lex_case" where
  "mozcpp_lex_918 eof la = (Some mozcpp_sym_identifier,
      if la = CH_H then ADVANCE 490 else
      if la = CH_BACKSLASH then ADVANCE 286 else
      if mozcpp_in_identifier la then ADVANCE 1152 else END_STATE)"

definition mozcpp_lex_919 :: "bool \<Rightarrow> codepoint \<Rightarrow> lex_case" where
  "mozcpp_lex_919 eof la = (Some mozcpp_sym_identifier,
      if la = CH_H then ADVANCE 957 else
      if la = CH_BACKSLASH then ADVANCE 286 else
      if mozcpp_in_identifier la then ADVANCE 1152 else END_STATE)"

definition mozcpp_lex_920 :: "bool \<Rightarrow> codepoint \<Rightarrow> lex_case" where
  "mozcpp_lex_920 eof la = (Some mozcpp_sym_identifier,
      if la = CH_H then ADVANCE 847 else
      if la = CH_L then ADVANCE 994 else
      if la = CH_BACKSLASH then ADVANCE 286 else
      if mozcpp_in_identifier la then ADVANCE 1152 else END_STATE)"

definition mozcpp_lex_921 :: "bool \<Rightarrow> codepoint \<Rightarrow> lex_case" where
  "mozcpp_lex_921 eof la = (Some mozcpp_sym_identifier,
      if la = CH_H then ADVANCE 847 else
      if la = CH_BACKSLASH then ADVANCE 286 else
      if mozcpp_in_identifier la then ADVANCE 1152 else END_STATE)"

definition mozcpp_lex_922 :: "bool \<Rightarrow> codepoint \<Rightarrow> lex_case" where
  "mozcpp_lex_922 eof la = (Some mozcpp_sym_identifier,
      if la = CH_H then ADVANCE 1000 else
      if la = CH_I then ADVANCE 1073 else
      if la = CH_S then ADVANCE 926 else
      if la = CH_T then ADVANCE 1013 else
      if la = CH_BACKSLASH then ADVANCE 286 else
      if mozcpp_in_identifier la then ADVANCE 1152 else END_STATE)"

definition mozcpp_lex_923 :: "bool \<Rightarrow> codepoint \<Rightarrow> lex_case" where
  "mozcpp_lex_923 eof la = (Some mozcpp_sym_identifier,
      if la = CH_H then ADVANCE 1000 else
      if la = CH_N then ADVANCE 490 else
      if la = CH_BACKSLASH then ADVANCE 286 else
      if mozcpp_in_identifier la then ADVANCE 1152 else END_STATE)"

definition mozcpp_lex_924 :: "bool \<Rightarrow> codepoint \<Rightarrow> lex_case" where
  "mozcpp_lex_924 eof la = (Some mozcpp_sym_identifier,
      if la = CH_H then ADVANCE 1000 else
      if la = CH_BACKSLASH then ADVANCE 286 else
      if mozcpp_in_identifier la then ADVANCE 1152 else END_STATE)"

definition mozcpp_lex_925 :: "bool \<Rightarrow> codepoint \<Rightarrow> lex_case" where
  "mozcpp_lex_925 eof la = (Some mozcpp_sym_identifier,
      if la = CH_I then ADVANCE 906 else
      if la = CH_BACKSLASH then ADVANCE 286 else
      if mozcpp_in_identifier la then ADVANCE 1152 else END_STATE)"

definition mozcpp_lex_926 :: "bool \<Rightarrow> codepoint \<Rightarrow> lex_case" where
  "mozcpp_lex_926 eof la = (Some mozcpp_sym_identifier,
      if la = CH_I then ADVANCE 1073 else
      if la = CH_BACKSLASH then ADVANCE 286 else
      if mozcpp_in_identifier la then ADVANCE 1152 else END_STATE)"

definition mozcpp_lex_927 :: "bool \<Rightarrow> codepoint \<Rightarrow> lex_case" where
  "mozcpp_lex_927 eof la = (Some mozcpp_sym_identifier,
      if la = CH_I then ADVANCE 882 else
      if la = CH_R then ADVANCE 882 else
      if la = CH_BACKSLASH then ADVANCE 286 else
      if mozcpp_in_identifier la then ADVANCE 1152 else END_STATE)"

definition mozcpp_lex_928 :: "bool \<Rightarrow> codepoint \<Rightarrow> lex_case" where
  "mozcpp_lex_928 eof la = (Some mozcpp_sym_identifier,
      if la = CH_I then ADVANCE 882 else
      if la = CH_T then ADVANCE 1071 else
      if la = CH_BACKSLASH then ADVANCE 286 else
      if mozcpp_in_identifier la then ADVANCE 1152 else END_STATE)"

definition mozcpp_lex_929 :: "bool \<Rightarrow> codepoint \<Rightarrow> lex_case" where
  "mozcpp_lex_929 eof la = (Some mozcpp_sym_identifier,
      if la = CH_I then ADVANCE 882 else
      if la = CH_BACKSLASH then ADVANCE 286 else
      if mozcpp_in_identifier la then ADVANCE 1152 else END_STATE)"

definition mozcpp_lex_930 :: "bool \<Rightarrow> codepoint \<Rightarrow> lex_case" where
  "mozcpp_lex_930 eof la = (Some mozcpp_sym_identifier,
      if la = CH_I then ADVANCE 1046 else
      if la = CH_R then ADVANCE 1059 else
      if la = CH_BACKSLASH then ADVANCE 286 else
      if mozcpp_in_identifier la then ADVANCE 1152 else END_STATE)"

definition mozcpp_lex_931 :: "bool \<Rightarrow> codepoint \<Rightarrow> lex_case" where
  "mozcpp_lex_931 eof la = (Some mozcpp_sym_identifier,
      if la = CH_I then ADVANCE 880 else
      if la = CH_BACKSLASH then ADVANCE 286 else
      if mozcpp_in_identifier la then ADVANCE 1152 else END_STATE)"

definition mozcpp_lex_932 :: "bool \<Rightarrow> codepoint \<Rightarrow> lex_case" where
  "mozcpp_lex_932 eof la = (Some mozcpp_sym_identifier,
      if la = CH_I then ADVANCE 949 else
      if la = CH_O then ADVANCE 968 else
      if la = CH_BACKSLASH then ADVANCE 286 else
      if mozcpp_in_identifier la then ADVANCE 1152 else END_STATE)"

definition mozcpp_lex_933 :: "bool \<Rightarrow> codepoint \<Rightarrow> lex_case" where
  "mozcpp_lex_933 eof la = (Some mozcpp_sym_identifier,
      if la = CH_I then ADVANCE 949 else
      if la = CH_BACKSLASH then ADVANCE 286 else
      if mozcpp_in_identifier la then ADVANCE 1152 else END_STATE)"

definition mozcpp_lex_934 :: "bool \<Rightarrow> codepoint \<Rightarrow> lex_case" where
  "mozcpp_lex_934 eof la = (Some mozcpp_sym_identifier,
      if la = CH_I then ADVANCE 915 else
      if la = CH_BACKSLASH then ADVANCE 286 else
      if mozcpp_in_identifier la then ADVANCE 1152 else END_STATE)"

definition mozcpp_lex_935 :: "bool \<Rightarrow> codepoint \<Rightarrow> lex_case" where
  "mozcpp_lex_935 eof la = (Some mozcpp_sym_identifier,
      if la = CH_I then ADVANCE 974 else
      if la = CH_N then ADVANCE 882 else
      if la = CH_BACKSLASH then ADVANCE 286 else
      if mozcpp_in_identifier la then ADVANCE 1152 else END_STATE)"

definition mozcpp_lex_936 :: "bool \<Rightarrow> codepoint \<Rightarrow> lex_case" where
  "mozcpp_lex_936 eof la = (Some mozcpp_sym_identifier,
      if la = CH_I then ADVANCE 1056 else
      if la = CH_BACKSLASH then ADVANCE 286 else
      if mozcpp_in_identifier la then ADVANCE 1152 else END_STATE)"

definition mozcpp_lex_937 :: "bool \<Rightarrow> codepoint \<Rightarrow> lex_case" where
  "mozcpp_lex_937 eof la = (Some mozcpp_sym_identifier,
      if la = CH_I then ADVANCE 967 else
      if la = CH_BACKSLASH then ADVANCE 286 else
      if mozcpp_in_identifier la then ADVANCE 1152 else END_STATE)"

definition mozcpp_lex_938 :: "bool \<Rightarrow> codepoint \<Rightarrow> lex_case" where
  "mozcpp_lex_938 eof la = (Some mozcpp_sym_identifier,
      if la = CH_I then ADVANCE 983 else
      if la = CH_BACKSLASH then ADVANCE 286 else
      if mozcpp_in_identifier la then ADVANCE 1152 else END_STATE)"

definition mozcpp_lex_939 :: "bool \<Rightarrow> codepoint \<Rightarrow> lex_case" where
  "mozcpp_lex_939 eof la = (Some mozcpp_sym_identifier,
      if la = CH_I then ADVANCE 879 else
      if la = CH_BACKSLASH then ADVANCE 286 else
      if mozcpp_in_identifier la then ADVANCE 1152 else END_STATE)"

definition mozcpp_lex_940 :: "bool \<Rightarrow> codepoint \<Rightarrow> lex_case" where
  "mozcpp_lex_940 eof la = (Some mozcpp_sym_identifier,
      if la = CH_I then ADVANCE 971 else
      if la = CH_BACKSLASH then ADVANCE 286 else
      if mozcpp_in_identifier la then ADVANCE 1152 else END_STATE)"

definition mozcpp_lex_941 :: "bool \<Rightarrow> codepoint \<Rightarrow> lex_case" where
  "mozcpp_lex_941 eof la = (Some mozcpp_sym_identifier,
      if la = CH_I then ADVANCE 1031 else
      if la = CH_BACKSLASH then ADVANCE 286 else
      if mozcpp_in_identifier la then ADVANCE 1152 else END_STATE)"

definition mozcpp_lex_942 :: "bool \<Rightarrow> codepoint \<Rightarrow> lex_case" where
  "mozcpp_lex_942 eof la = (Some mozcpp_sym_identifier,
      if la = CH_J then ADVANCE 490 else
      if la = CH_BACKSLASH then ADVANCE 286 else
      if mozcpp_in_identifier la then ADVANCE 1152 else END_STATE)"

definition mozcpp_lex_943 :: "bool \<Rightarrow> codepoint \<Rightarrow> lex_case" where
  "mozcpp_lex_943 eof la = (Some mozcpp_sym_identifier,
      if la = CH_K then ADVANCE 490 else
      if la = CH_BACKSLASH then ADVANCE 286 else
      if mozcpp_in_identifier la then ADVANCE 1152 else END_STATE)"

definition mozcpp_lex_944 :: "bool \<Rightarrow> codepoint \<Rightarrow> lex_case" where
  "mozcpp_lex_944 eof la = (Some mozcpp_sym_identifier,
      if la = CH_L then ADVANCE 1035 else
      if la = CH_BACKSLASH then ADVANCE 286 else
      if mozcpp_in_identifier la then ADVANCE 1152 else END_STATE)"

definition mozcpp_lex_945 :: "bool \<Rightarrow> codepoint \<Rightarrow> lex_case" where
  "mozcpp_lex_945 eof la = (Some mozcpp_sym_identifier,
      if la = CH_L then ADVANCE 909 else
      if la = CH_N then ADVANCE 884 else
      if la = CH_BACKSLASH then ADVANCE 286 else
      if mozcpp_in_identifier la then ADVANCE 1152 else END_STATE)"

definition mozcpp_lex_946 :: "bool \<Rightarrow> codepoint \<Rightarrow> lex_case" where
  "mozcpp_lex_946 eof la = (Some mozcpp_sym_identifier,
      if la = CH_L then ADVANCE 909 else
      if la = CH_BACKSLASH then ADVANCE 286 else
      if mozcpp_in_identifier la then ADVANCE 1152 else END_STATE)"

definition mozcpp_lex_947 :: "bool \<Rightarrow> codepoint \<Rightarrow> lex_case" where
  "mozcpp_lex_947 eof la = (Some mozcpp_sym_identifier,
      if la = CH_L then ADVANCE 490 else
      if la = CH_BACKSLASH then ADVANCE 286 else
      if mozcpp_in_identifier la then ADVANCE 1152 else END_STATE)"

definition mozcpp_lex_948 :: "bool \<Rightarrow> codepoint \<Rightarrow> lex_case" where
  "mozcpp_lex_948 eof la = (Some mozcpp_sym_identifier,
      if la = CH_L then ADVANCE 488 else
      if la = CH_BACKSLASH then ADVANCE 286 else
      if mozcpp_in_identifier la then ADVANCE 1152 else END_STATE)"

definition mozcpp_lex_949 :: "bool \<Rightarrow> codepoint \<Rightarrow> lex_case" where
  "mozcpp_lex_949 eof la = (Some mozcpp_sym_identifier,
      if la = CH_L then ADVANCE 889 else
      if la = CH_BACKSLASH then ADVANCE 286 else
      if mozcpp_in_identifier la then ADVANCE 1152 else END_STATE)"

definition mozcpp_lex_950 :: "bool \<Rightarrow> codepoint \<Rightarrow> lex_case" where
  "mozcpp_lex_950 eof la = (Some mozcpp_sym_identifier,
      if la = CH_L then ADVANCE 986 else
      if la = CH_BACKSLASH then ADVANCE 286 else
      if mozcpp_in_identifier la then ADVANCE 1152 else END_STATE)"

definition mozcpp_lex_951 :: "bool \<Rightarrow> codepoint \<Rightarrow> lex_case" where
  "mozcpp_lex_951 eof la = (Some mozcpp_sym_identifier,
      if la = CH_L then ADVANCE 1043 else
      if la = CH_BACKSLASH then ADVANCE 286 else
      if mozcpp_in_identifier la then ADVANCE 1152 else END_STATE)"

definition mozcpp_lex_952 :: "bool \<Rightarrow> codepoint \<Rightarrow> lex_case" where
  "mozcpp_lex_952 eof la = (Some mozcpp_sym_identifier,
      if la = CH_L then ADVANCE 903 else
      if la = CH_BACKSLASH then ADVANCE 286 else
      if mozcpp_in_identifier la then ADVANCE 1152 else END_STATE)"

definition mozcpp_lex_953 :: "bool \<Rightarrow> codepoint \<Rightarrow> lex_case" where
  "mozcpp_lex_953 eof la = (Some mozcpp_sym_identifier,
      if la = CH_L then ADVANCE 1001 else
      if la = CH_BACKSLASH then ADVANCE 286 else
      if mozcpp_in_identifier la then ADVANCE 1152 else END_STATE)"

definition mozcpp_lex_954 :: "bool \<Rightarrow> codepoint \<Rightarrow> lex_case" where
  "mozcpp_lex_954 eof la = (Some mozcpp_sym_identifier,
      if la = CH_L then ADVANCE 1004 else
      if la = CH_N then ADVANCE 1063 else
      if la = CH_BACKSLASH then ADVANCE 286 else
      if mozcpp_in_identifier la then ADVANCE 1152 else END_STATE)"

definition mozcpp_lex_955 :: "bool \<Rightarrow> codepoint \<Rightarrow> lex_case" where
  "mozcpp_lex_955 eof la = (Some mozcpp_sym_identifier,
      if la = CH_M then ADVANCE 490 else
      if la = CH_BACKSLASH then ADVANCE 286 else
      if mozcpp_in_identifier la then ADVANCE 1152 else END_STATE)"

definition mozcpp_lex_956 :: "bool \<Rightarrow> codepoint \<Rightarrow> lex_case" where
  "mozcpp_lex_956 eof la = (Some mozcpp_sym_identifier,
      if la = CH_M then ADVANCE 833 else
      if la = CH_BACKSLASH then ADVANCE 286 else
      if mozcpp_in_identifier la then ADVANCE 1152 else END_STATE)"

definition mozcpp_lex_957 :: "bool \<Rightarrow> codepoint \<Rightarrow> lex_case" where
  "mozcpp_lex_957 eof la = (Some mozcpp_sym_identifier,
      if la = CH_M then ADVANCE 904 else
      if la = CH_BACKSLASH then ADVANCE 286 else
      if mozcpp_in_identifier la then ADVANCE 1152 else END_STATE)"

definition mozcpp_lex_958 :: "bool \<Rightarrow> codepoint \<Rightarrow> lex_case" where
  "mozcpp_lex_958 eof la = (Some mozcpp_sym_identifier,
      if la = CH_N then ADVANCE 884 else
      if la = CH_BACKSLASH then ADVANCE 286 else
      if mozcpp_in_identifier la then ADVANCE 1152 else END_STATE)"

definition mozcpp_lex_959 :: "bool \<Rightarrow> codepoint \<Rightarrow> lex_case" where
  "mozcpp_lex_959 eof la = (Some mozcpp_sym_identifier,
      if la = CH_N then ADVANCE 490 else
      if la = CH_BACKSLASH then ADVANCE 286 else
      if mozcpp_in_identifier la then ADVANCE 1152 else END_STATE)"

definition mozcpp_lex_960 :: "bool \<Rightarrow> codepoint \<Rightarrow> lex_case" where
  "mozcpp_lex_960 eof la = (Some mozcpp_sym_identifier,
      if la = CH_N then ADVANCE 914 else
      if la = CH_BACKSLASH then ADVANCE 286 else
      if mozcpp_in_identifier la then ADVANCE 1152 else END_STATE)"

definition mozcpp_lex_961 :: "bool \<Rightarrow> codepoint \<Rightarrow> lex_case" where
  "mozcpp_lex_961 eof la = (Some mozcpp_sym_identifier,
      if la = CH_N then ADVANCE 1044 else
      if la = CH_BACKSLASH then ADVANCE 286 else
      if mozcpp_in_identifier la then ADVANCE 1152 else END_STATE)"

definition mozcpp_lex_962 :: "bool \<Rightarrow> codepoint \<Rightarrow> lex_case" where
  "mozcpp_lex_962 eof la = (Some mozcpp_sym_identifier,
      if la = CH_N then ADVANCE 919 else
      if la = CH_BACKSLASH then ADVANCE 286 else
      if mozcpp_in_identifier la then ADVANCE 1152 else END_STATE)"

definition mozcpp_lex_963 :: "bool \<Rightarrow> codepoint \<Rightarrow> lex_case" where
  "mozcpp_lex_963 eof la = (Some mozcpp_sym_identifier,
      if la = CH_N then ADVANCE 912 else
      if la = CH_BACKSLASH then ADVANCE 286 else
      if mozcpp_in_identifier la then ADVANCE 1152 else END_STATE)"

definition mozcpp_lex_964 :: "bool \<Rightarrow> codepoint \<Rightarrow> lex_case" where
  "mozcpp_lex_964 eof la = (Some mozcpp_sym_identifier,
      if la = CH_N then ADVANCE 757 else
      if la = CH_BACKSLASH then ADVANCE 286 else
      if (CH_0 \<le> la \<and> la \<le> CH_9) \<or> (CH_A \<le> la \<and> la \<le> CH_Z) \<or> la
        = CH_UNDERSCORE then ADVANCE 792 else
      if mozcpp_in_identifier la then ADVANCE 1152 else END_STATE)"

definition mozcpp_lex_965 :: "bool \<Rightarrow> codepoint \<Rightarrow> lex_case" where
  "mozcpp_lex_965 eof la = (Some mozcpp_sym_identifier,
      if la = CH_N then ADVANCE 1057 else
      if la = CH_T then ADVANCE 837 else
      if la = CH_BACKSLASH then ADVANCE 286 else
      if mozcpp_in_identifier la then ADVANCE 1152 else END_STATE)"

definition mozcpp_lex_966 :: "bool \<Rightarrow> codepoint \<Rightarrow> lex_case" where
  "mozcpp_lex_966 eof la = (Some mozcpp_sym_identifier,
      if la = CH_N then ADVANCE 913 else
      if la = CH_BACKSLASH then ADVANCE 286 else
      if mozcpp_in_identifier la then ADVANCE 1152 else END_STATE)"

definition mozcpp_lex_967 :: "bool \<Rightarrow> codepoint \<Rightarrow> lex_case" where
  "mozcpp_lex_967 eof la = (Some mozcpp_sym_identifier,
      if la = CH_N then ADVANCE 911 else
      if la = CH_BACKSLASH then ADVANCE 286 else
      if mozcpp_in_identifier la then ADVANCE 1152 else END_STATE)"

definition mozcpp_lex_968 :: "bool \<Rightarrow> codepoint \<Rightarrow> lex_case" where
  "mozcpp_lex_968 eof la = (Some mozcpp_sym_identifier,
      if la = CH_N then ADVANCE 1043 else
      if la = CH_BACKSLASH then ADVANCE 286 else
      if mozcpp_in_identifier la then ADVANCE 1152 else END_STATE)"

definition mozcpp_lex_969 :: "bool \<Rightarrow> codepoint \<Rightarrow> lex_case" where
  "mozcpp_lex_969 eof la = (Some mozcpp_sym_identifier,
      if la = CH_N then ADVANCE 1038 else
      if la = CH_BACKSLASH then ADVANCE 286 else
      if mozcpp_in_identifier la then ADVANCE 1152 else END_STATE)"

definition mozcpp_lex_970 :: "bool \<Rightarrow> codepoint \<Rightarrow> lex_case" where
  "mozcpp_lex_970 eof la = (Some mozcpp_sym_identifier,
      if la = CH_N then ADVANCE 895 else
      if la = CH_BACKSLASH then ADVANCE 286 else
      if mozcpp_in_identifier la then ADVANCE 1152 else END_STATE)"

definition mozcpp_lex_971 :: "bool \<Rightarrow> codepoint \<Rightarrow> lex_case" where
  "mozcpp_lex_971 eof la = (Some mozcpp_sym_identifier,
      if la = CH_N then ADVANCE 1050 else
      if la = CH_BACKSLASH then ADVANCE 286 else
      if mozcpp_in_identifier la then ADVANCE 1152 else END_STATE)"

definition mozcpp_lex_972 :: "bool \<Rightarrow> codepoint \<Rightarrow> lex_case" where
  "mozcpp_lex_972 eof la = (Some mozcpp_sym_identifier,
      if la = CH_N then ADVANCE 1051 else
      if la = CH_BACKSLASH then ADVANCE 286 else
      if mozcpp_in_identifier la then ADVANCE 1152 else END_STATE)"

definition mozcpp_lex_973 :: "bool \<Rightarrow> codepoint \<Rightarrow> lex_case" where
  "mozcpp_lex_973 eof la = (Some mozcpp_sym_identifier,
      if la = CH_N then ADVANCE 875 else
      if la = CH_BACKSLASH then ADVANCE 286 else
      if mozcpp_in_identifier la then ADVANCE 1152 else END_STATE)"

definition mozcpp_lex_974 :: "bool \<Rightarrow> codepoint \<Rightarrow> lex_case" where
  "mozcpp_lex_974 eof la = (Some mozcpp_sym_identifier,
      if la = CH_N then ADVANCE 1037 else
      if la = CH_BACKSLASH then ADVANCE 286 else
      if mozcpp_in_identifier la then ADVANCE 1152 else END_STATE)"

definition mozcpp_lex_975 :: "bool \<Rightarrow> codepoint \<Rightarrow> lex_case" where
  "mozcpp_lex_975 eof la = (Some mozcpp_sym_identifier,
      if la = CH_O then ADVANCE 953 else
      if la = CH_S then ADVANCE 1047 else
      if la = CH_V then ADVANCE 992 else
      if la = CH_W then ADVANCE 1029 else
      if la = CH_BACKSLASH then ADVANCE 286 else
      if mozcpp_in_identifier la then ADVANCE 1152 else END_STATE)"

definition mozcpp_lex_976 :: "bool \<Rightarrow> codepoint \<Rightarrow> lex_case" where
  "mozcpp_lex_976 eof la = (Some mozcpp_sym_identifier,
      if la = CH_O then ADVANCE 955 else
      if la = CH_BACKSLASH then ADVANCE 286 else
      if mozcpp_in_identifier la then ADVANCE 1152 else END_STATE)"

definition mozcpp_lex_977 :: "bool \<Rightarrow> codepoint \<Rightarrow> lex_case" where
  "mozcpp_lex_977 eof la = (Some mozcpp_sym_identifier,
      if la = CH_O then ADVANCE 954 else
      if la = CH_U then ADVANCE 1023 else
      if la = CH_BACKSLASH then ADVANCE 286 else
      if mozcpp_in_identifier la then ADVANCE 1152 else END_STATE)"

definition mozcpp_lex_978 :: "bool \<Rightarrow> codepoint \<Rightarrow> lex_case" where
  "mozcpp_lex_978 eof la = (Some mozcpp_sym_identifier,
      if la = CH_O then ADVANCE 1006 else
      if la = CH_BACKSLASH then ADVANCE 286 else
      if mozcpp_in_identifier la then ADVANCE 1152 else END_STATE)"

definition mozcpp_lex_979 :: "bool \<Rightarrow> codepoint \<Rightarrow> lex_case" where
  "mozcpp_lex_979 eof la = (Some mozcpp_sym_identifier,
      if la = CH_O then ADVANCE 943 else
      if la = CH_BACKSLASH then ADVANCE 286 else
      if mozcpp_in_identifier la then ADVANCE 1152 else END_STATE)"

definition mozcpp_lex_980 :: "bool \<Rightarrow> codepoint \<Rightarrow> lex_case" where
  "mozcpp_lex_980 eof la = (Some mozcpp_sym_identifier,
      if la = CH_O then ADVANCE 861 else
      if la = CH_BACKSLASH then ADVANCE 286 else
      if mozcpp_in_identifier la then ADVANCE 1152 else END_STATE)"

definition mozcpp_lex_981 :: "bool \<Rightarrow> codepoint \<Rightarrow> lex_case" where
  "mozcpp_lex_981 eof la = (Some mozcpp_sym_identifier,
      if la = CH_O then ADVANCE 927 else
      if la = CH_S then ADVANCE 1047 else
      if la = CH_BACKSLASH then ADVANCE 286 else
      if mozcpp_in_identifier la then ADVANCE 1152 else END_STATE)"

definition mozcpp_lex_982 :: "bool \<Rightarrow> codepoint \<Rightarrow> lex_case" where
  "mozcpp_lex_982 eof la = (Some mozcpp_sym_identifier,
      if la = CH_O then ADVANCE 881 else
      if la = CH_BACKSLASH then ADVANCE 286 else
      if mozcpp_in_identifier la then ADVANCE 1152 else END_STATE)"

definition mozcpp_lex_983 :: "bool \<Rightarrow> codepoint \<Rightarrow> lex_case" where
  "mozcpp_lex_983 eof la = (Some mozcpp_sym_identifier,
      if la = CH_O then ADVANCE 858 else
      if la = CH_BACKSLASH then ADVANCE 286 else
      if mozcpp_in_identifier la then ADVANCE 1152 else END_STATE)"

definition mozcpp_lex_984 :: "bool \<Rightarrow> codepoint \<Rightarrow> lex_case" where
  "mozcpp_lex_984 eof la = (Some mozcpp_sym_identifier,
      if la = CH_O then ADVANCE 704 else
      if la = CH_Y then ADVANCE 758 else
      if la = CH_BACKSLASH then ADVANCE 286 else
      if (CH_0 \<le> la \<and> la \<le> CH_9) \<or> (CH_A \<le> la \<and> la \<le> CH_Z) \<or> la
        = CH_UNDERSCORE then ADVANCE 792 else
      if mozcpp_in_identifier la then ADVANCE 1152 else END_STATE)"

definition mozcpp_lex_985 :: "bool \<Rightarrow> codepoint \<Rightarrow> lex_case" where
  "mozcpp_lex_985 eof la = (Some mozcpp_sym_identifier,
      if la = CH_O then ADVANCE 987 else
      if la = CH_Y then ADVANCE 1045 else
      if la = CH_BACKSLASH then ADVANCE 286 else
      if mozcpp_in_identifier la then ADVANCE 1152 else END_STATE)"

definition mozcpp_lex_986 :: "bool \<Rightarrow> codepoint \<Rightarrow> lex_case" where
  "mozcpp_lex_986 eof la = (Some mozcpp_sym_identifier,
      if la = CH_O then ADVANCE 843 else
      if la = CH_BACKSLASH then ADVANCE 286 else
      if mozcpp_in_identifier la then ADVANCE 1152 else END_STATE)"

definition mozcpp_lex_987 :: "bool \<Rightarrow> codepoint \<Rightarrow> lex_case" where
  "mozcpp_lex_987 eof la = (Some mozcpp_sym_identifier,
      if la = CH_O then ADVANCE 948 else
      if la = CH_BACKSLASH then ADVANCE 286 else
      if mozcpp_in_identifier la then ADVANCE 1152 else END_STATE)"

definition mozcpp_lex_988 :: "bool \<Rightarrow> codepoint \<Rightarrow> lex_case" where
  "mozcpp_lex_988 eof la = (Some mozcpp_sym_identifier,
      if la = CH_O then ADVANCE 1016 else
      if la = CH_BACKSLASH then ADVANCE 286 else
      if mozcpp_in_identifier la then ADVANCE 1152 else END_STATE)"

definition mozcpp_lex_989 :: "bool \<Rightarrow> codepoint \<Rightarrow> lex_case" where
  "mozcpp_lex_989 eof la = (Some mozcpp_sym_identifier,
      if la = CH_O then ADVANCE 963 else
      if la = CH_BACKSLASH then ADVANCE 286 else
      if mozcpp_in_identifier la then ADVANCE 1152 else END_STATE)"

definition mozcpp_lex_990 :: "bool \<Rightarrow> codepoint \<Rightarrow> lex_case" where
  "mozcpp_lex_990 eof la = (Some mozcpp_sym_identifier,
      if la = CH_O then ADVANCE 1013 else
      if la = CH_BACKSLASH then ADVANCE 286 else
      if mozcpp_in_identifier la then ADVANCE 1152 else END_STATE)"

definition mozcpp_lex_991 :: "bool \<Rightarrow> codepoint \<Rightarrow> lex_case" where
  "mozcpp_lex_991 eof la = (Some mozcpp_sym_identifier,
      if la = CH_O then ADVANCE 959 else
      if la = CH_BACKSLASH then ADVANCE 286 else
      if mozcpp_in_identifier la then ADVANCE 1152 else END_STATE)"

definition mozcpp_lex_992 :: "bool \<Rightarrow> codepoint \<Rightarrow> lex_case" where
  "mozcpp_lex_992 eof la = (Some mozcpp_sym_identifier,
      if la = CH_O then ADVANCE 929 else
      if la = CH_BACKSLASH then ADVANCE 286 else
      if mozcpp_in_identifier la then ADVANCE 1152 else END_STATE)"

definition mozcpp_lex_993 :: "bool \<Rightarrow> codepoint \<Rightarrow> lex_case" where
  "mozcpp_lex_993 eof la = (Some mozcpp_sym_identifier,
      if la = CH_O then ADVANCE 1018 else
      if la = CH_BACKSLASH then ADVANCE 286 else
      if mozcpp_in_identifier la then ADVANCE 1152 else END_STATE)"

definition mozcpp_lex_994 :: "bool \<Rightarrow> codepoint \<Rightarrow> lex_case" where
  "mozcpp_lex_994 eof la = (Some mozcpp_sym_identifier,
      if la = CH_O then ADVANCE 871 else
      if la = CH_BACKSLASH then ADVANCE 286 else
      if mozcpp_in_identifier la then ADVANCE 1152 else END_STATE)"

definition mozcpp_lex_995 :: "bool \<Rightarrow> codepoint \<Rightarrow> lex_case" where
  "mozcpp_lex_995 eof la = (Some mozcpp_sym_identifier,
      if la = CH_O then ADVANCE 888 else
      if la = CH_BACKSLASH then ADVANCE 286 else
      if mozcpp_in_identifier la then ADVANCE 1152 else END_STATE)"

definition mozcpp_lex_996 :: "bool \<Rightarrow> codepoint \<Rightarrow> lex_case" where
  "mozcpp_lex_996 eof la = (Some mozcpp_sym_identifier,
      if la = CH_O then ADVANCE 648 else
      if la = CH_BACKSLASH then ADVANCE 286 else
      if (CH_0 \<le> la \<and> la \<le> CH_9) \<or> (CH_A \<le> la \<and> la \<le> CH_Z) \<or> la
        = CH_UNDERSCORE then ADVANCE 792 else
      if mozcpp_in_identifier la then ADVANCE 1152 else END_STATE)"

definition mozcpp_lex_997 :: "bool \<Rightarrow> codepoint \<Rightarrow> lex_case" where
  "mozcpp_lex_997 eof la = (Some mozcpp_sym_identifier,
      if la = CH_O then ADVANCE 966 else
      if la = CH_BACKSLASH then ADVANCE 286 else
      if mozcpp_in_identifier la then ADVANCE 1152 else END_STATE)"

definition mozcpp_lex_998 :: "bool \<Rightarrow> codepoint \<Rightarrow> lex_case" where
  "mozcpp_lex_998 eof la = (Some mozcpp_sym_identifier,
      if la = CH_O then ADVANCE 947 else
      if la = CH_BACKSLASH then ADVANCE 286 else
      if mozcpp_in_identifier la then ADVANCE 1152 else END_STATE)"

definition mozcpp_lex_999 :: "bool \<Rightarrow> codepoint \<Rightarrow> lex_case" where
  "mozcpp_lex_999 eof la = (Some mozcpp_sym_identifier,
      if la = CH_O then ADVANCE 967 else
      if la = CH_BACKSLASH then ADVANCE 286 else
      if mozcpp_in_identifier la then ADVANCE 1152 else END_STATE)"

definition mozcpp_lex_1000 :: "bool \<Rightarrow> codepoint \<Rightarrow> lex_case" where
  "mozcpp_lex_1000 eof la = (Some mozcpp_sym_identifier,
      if la = CH_O then ADVANCE 1020 else
      if la = CH_BACKSLASH then ADVANCE 286 else
      if mozcpp_in_identifier la then ADVANCE 1152 else END_STATE)"

definition mozcpp_lex_1001 :: "bool \<Rightarrow> codepoint \<Rightarrow> lex_case" where
  "mozcpp_lex_1001 eof la = (Some mozcpp_sym_identifier,
      if la = CH_O then ADVANCE 1025 else
      if la = CH_BACKSLASH then ADVANCE 286 else
      if mozcpp_in_identifier la then ADVANCE 1152 else END_STATE)"

definition mozcpp_lex_1002 :: "bool \<Rightarrow> codepoint \<Rightarrow> lex_case" where
  "mozcpp_lex_1002 eof la = (Some mozcpp_sym_identifier,
      if la = CH_O then ADVANCE 979 else
      if la = CH_BACKSLASH then ADVANCE 286 else
      if mozcpp_in_identifier la then ADVANCE 1152 else END_STATE)"

definition mozcpp_lex_1003 :: "bool \<Rightarrow> codepoint \<Rightarrow> lex_case" where
  "mozcpp_lex_1003 eof la = (Some mozcpp_sym_identifier,
      if la = CH_O then ADVANCE 998 else
      if la = CH_Y then ADVANCE 1045 else
      if la = CH_BACKSLASH then ADVANCE 286 else
      if mozcpp_in_identifier la then ADVANCE 1152 else END_STATE)"

definition mozcpp_lex_1004 :: "bool \<Rightarrow> codepoint \<Rightarrow> lex_case" where
  "mozcpp_lex_1004 eof la = (Some mozcpp_sym_identifier,
      if la = CH_O then ADVANCE 1024 else
      if la = CH_BACKSLASH then ADVANCE 286 else
      if mozcpp_in_identifier la then ADVANCE 1152 else END_STATE)"

definition mozcpp_lex_1005 :: "bool \<Rightarrow> codepoint \<Rightarrow> lex_case" where
  "mozcpp_lex_1005 eof la = (Some mozcpp_sym_identifier,
      if la = CH_P then ADVANCE 925 else
      if la = CH_T then ADVANCE 976 else
      if la = CH_BACKSLASH then ADVANCE 286 else
      if mozcpp_in_identifier la then ADVANCE 1152 else END_STATE)"

definition mozcpp_lex_1006 :: "bool \<Rightarrow> codepoint \<Rightarrow> lex_case" where
  "mozcpp_lex_1006 eof la = (Some mozcpp_sym_identifier,
      if la = CH_P then ADVANCE 490 else
      if la = CH_BACKSLASH then ADVANCE 286 else
      if mozcpp_in_identifier la then ADVANCE 1152 else END_STATE)"

definition mozcpp_lex_1007 :: "bool \<Rightarrow> codepoint \<Rightarrow> lex_case" where
  "mozcpp_lex_1007 eof la = (Some mozcpp_sym_identifier,
      if la = CH_P then ADVANCE 644 else
      if la = CH_T then ADVANCE 694 else
      if la = CH_BACKSLASH then ADVANCE 286 else
      if (CH_0 \<le> la \<and> la \<le> CH_9) \<or> (CH_A \<le> la \<and> la \<le> CH_Z) \<or> la
        = CH_UNDERSCORE then ADVANCE 792 else
      if mozcpp_in_identifier la then ADVANCE 1152 else END_STATE)"

definition mozcpp_lex_1008 :: "bool \<Rightarrow> codepoint \<Rightarrow> lex_case" where
  "mozcpp_lex_1008 eof la = (Some mozcpp_sym_identifier,
      if la = CH_P then ADVANCE 889 else
      if la = CH_BACKSLASH then ADVANCE 286 else
      if mozcpp_in_identifier la then ADVANCE 1152 else END_STATE)"

definition mozcpp_lex_1009 :: "bool \<Rightarrow> codepoint \<Rightarrow> lex_case" where
  "mozcpp_lex_1009 eof la = (Some mozcpp_sym_identifier,
      if la = CH_P then ADVANCE 1047 else
      if la = CH_BACKSLASH then ADVANCE 286 else
      if mozcpp_in_identifier la then ADVANCE 1152 else END_STATE)"

definition mozcpp_lex_1010 :: "bool \<Rightarrow> codepoint \<Rightarrow> lex_case" where
  "mozcpp_lex_1010 eof la = (Some mozcpp_sym_identifier,
      if la = CH_P then ADVANCE 929 else
      if la = CH_BACKSLASH then ADVANCE 286 else
      if mozcpp_in_identifier la then ADVANCE 1152 else END_STATE)"

definition mozcpp_lex_1011 :: "bool \<Rightarrow> codepoint \<Rightarrow> lex_case" where
  "mozcpp_lex_1011 eof la = (Some mozcpp_sym_identifier,
      if la = CH_P then ADVANCE 853 else
      if la = CH_BACKSLASH then ADVANCE 286 else
      if mozcpp_in_identifier la then ADVANCE 1152 else END_STATE)"

definition mozcpp_lex_1012 :: "bool \<Rightarrow> codepoint \<Rightarrow> lex_case" where
  "mozcpp_lex_1012 eof la = (Some mozcpp_sym_identifier,
      if la = CH_R then ADVANCE 1060 else
      if la = CH_BACKSLASH then ADVANCE 286 else
      if mozcpp_in_identifier la then ADVANCE 1152 else END_STATE)"

definition mozcpp_lex_1013 :: "bool \<Rightarrow> codepoint \<Rightarrow> lex_case" where
  "mozcpp_lex_1013 eof la = (Some mozcpp_sym_identifier,
      if la = CH_R then ADVANCE 490 else
      if la = CH_BACKSLASH then ADVANCE 286 else
      if mozcpp_in_identifier la then ADVANCE 1152 else END_STATE)"

definition mozcpp_lex_1014 :: "bool \<Rightarrow> codepoint \<Rightarrow> lex_case" where
  "mozcpp_lex_1014 eof la = (Some mozcpp_sym_identifier,
      if la = CH_R then ADVANCE 1064 else
      if la = CH_BACKSLASH then ADVANCE 286 else
      if mozcpp_in_identifier la then ADVANCE 1152 else END_STATE)"

definition mozcpp_lex_1015 :: "bool \<Rightarrow> codepoint \<Rightarrow> lex_case" where
  "mozcpp_lex_1015 eof la = (Some mozcpp_sym_identifier,
      if la = CH_R then ADVANCE 1070 else
      if la = CH_BACKSLASH then ADVANCE 286 else
      if mozcpp_in_identifier la then ADVANCE 1152 else END_STATE)"

definition mozcpp_lex_1016 :: "bool \<Rightarrow> codepoint \<Rightarrow> lex_case" where
  "mozcpp_lex_1016 eof la = (Some mozcpp_sym_identifier,
      if la = CH_R then ADVANCE 882 else
      if la = CH_BACKSLASH then ADVANCE 286 else
      if mozcpp_in_identifier la then ADVANCE 1152 else END_STATE)"

definition mozcpp_lex_1017 :: "bool \<Rightarrow> codepoint \<Rightarrow> lex_case" where
  "mozcpp_lex_1017 eof la = (Some mozcpp_sym_identifier,
      if la = CH_R then ADVANCE 1010 else
      if la = CH_BACKSLASH then ADVANCE 286 else
      if mozcpp_in_identifier la then ADVANCE 1152 else END_STATE)"

definition mozcpp_lex_1018 :: "bool \<Rightarrow> codepoint \<Rightarrow> lex_case" where
  "mozcpp_lex_1018 eof la = (Some mozcpp_sym_identifier,
      if la = CH_R then ADVANCE 883 else
      if la = CH_BACKSLASH then ADVANCE 286 else
      if mozcpp_in_identifier la then ADVANCE 1152 else END_STATE)"

definition mozcpp_lex_1019 :: "bool \<Rightarrow> codepoint \<Rightarrow> lex_case" where
  "mozcpp_lex_1019 eof la = (Some mozcpp_sym_identifier,
      if la = CH_R then ADVANCE 870 else
      if la = CH_BACKSLASH then ADVANCE 286 else
      if mozcpp_in_identifier la then ADVANCE 1152 else END_STATE)"

definition mozcpp_lex_1020 :: "bool \<Rightarrow> codepoint \<Rightarrow> lex_case" where
  "mozcpp_lex_1020 eof la = (Some mozcpp_sym_identifier,
      if la = CH_R then ADVANCE 1043 else
      if la = CH_BACKSLASH then ADVANCE 286 else
      if mozcpp_in_identifier la then ADVANCE 1152 else END_STATE)"

definition mozcpp_lex_1021 :: "bool \<Rightarrow> codepoint \<Rightarrow> lex_case" where
  "mozcpp_lex_1021 eof la = (Some mozcpp_sym_identifier,
      if la = CH_R then ADVANCE 831 else
      if la = CH_BACKSLASH then ADVANCE 286 else
      if mozcpp_in_identifier la then ADVANCE 1152 else END_STATE)"

definition mozcpp_lex_1022 :: "bool \<Rightarrow> codepoint \<Rightarrow> lex_case" where
  "mozcpp_lex_1022 eof la = (Some mozcpp_sym_identifier,
      if la = CH_R then ADVANCE 1075 else
      if la = CH_BACKSLASH then ADVANCE 286 else
      if mozcpp_in_identifier la then ADVANCE 1152 else END_STATE)"

definition mozcpp_lex_1023 :: "bool \<Rightarrow> codepoint \<Rightarrow> lex_case" where
  "mozcpp_lex_1023 eof la = (Some mozcpp_sym_identifier,
      if la = CH_R then ADVANCE 1041 else
      if la = CH_BACKSLASH then ADVANCE 286 else
      if mozcpp_in_identifier la then ADVANCE 1152 else END_STATE)"

definition mozcpp_lex_1024 :: "bool \<Rightarrow> codepoint \<Rightarrow> lex_case" where
  "mozcpp_lex_1024 eof la = (Some mozcpp_sym_identifier,
      if la = CH_R then ADVANCE 1033 else
      if la = CH_BACKSLASH then ADVANCE 286 else
      if mozcpp_in_identifier la then ADVANCE 1152 else END_STATE)"

definition mozcpp_lex_1025 :: "bool \<Rightarrow> codepoint \<Rightarrow> lex_case" where
  "mozcpp_lex_1025 eof la = (Some mozcpp_sym_identifier,
      if la = CH_R then ADVANCE 1027 else
      if la = CH_BACKSLASH then ADVANCE 286 else
      if mozcpp_in_identifier la then ADVANCE 1152 else END_STATE)"

definition mozcpp_lex_1026 :: "bool \<Rightarrow> codepoint \<Rightarrow> lex_case" where
  "mozcpp_lex_1026 eof la = (Some mozcpp_sym_identifier,
      if la = CH_R then ADVANCE 937 else
      if la = CH_BACKSLASH then ADVANCE 286 else
      if mozcpp_in_identifier la then ADVANCE 1152 else END_STATE)"

definition mozcpp_lex_1027 :: "bool \<Rightarrow> codepoint \<Rightarrow> lex_case" where
  "mozcpp_lex_1027 eof la = (Some mozcpp_sym_identifier,
      if la = CH_R then ADVANCE 896 else
      if la = CH_BACKSLASH then ADVANCE 286 else
      if mozcpp_in_identifier la then ADVANCE 1152 else END_STATE)"

definition mozcpp_lex_1028 :: "bool \<Rightarrow> codepoint \<Rightarrow> lex_case" where
  "mozcpp_lex_1028 eof la = (Some mozcpp_sym_identifier,
      if la = CH_S then ADVANCE 943 else
      if la = CH_BACKSLASH then ADVANCE 286 else
      if mozcpp_in_identifier la then ADVANCE 1152 else END_STATE)"

definition mozcpp_lex_1029 :: "bool \<Rightarrow> codepoint \<Rightarrow> lex_case" where
  "mozcpp_lex_1029 eof la = (Some mozcpp_sym_identifier,
      if la = CH_S then ADVANCE 1047 else
      if la = CH_BACKSLASH then ADVANCE 286 else
      if mozcpp_in_identifier la then ADVANCE 1152 else END_STATE)"

definition mozcpp_lex_1030 :: "bool \<Rightarrow> codepoint \<Rightarrow> lex_case" where
  "mozcpp_lex_1030 eof la = (Some mozcpp_sym_identifier,
      if la = CH_S then ADVANCE 918 else
      if la = CH_BACKSLASH then ADVANCE 286 else
      if mozcpp_in_identifier la then ADVANCE 1152 else END_STATE)"

definition mozcpp_lex_1031 :: "bool \<Rightarrow> codepoint \<Rightarrow> lex_case" where
  "mozcpp_lex_1031 eof la = (Some mozcpp_sym_identifier,
      if la = CH_S then ADVANCE 1043 else
      if la = CH_BACKSLASH then ADVANCE 286 else
      if mozcpp_in_identifier la then ADVANCE 1152 else END_STATE)"

definition mozcpp_lex_1032 :: "bool \<Rightarrow> codepoint \<Rightarrow> lex_case" where
  "mozcpp_lex_1032 eof la = (Some mozcpp_sym_identifier,
      if la = CH_S then ADVANCE 1061 else
      if la = CH_BACKSLASH then ADVANCE 286 else
      if mozcpp_in_identifier la then ADVANCE 1152 else END_STATE)"

definition mozcpp_lex_1033 :: "bool \<Rightarrow> codepoint \<Rightarrow> lex_case" where
  "mozcpp_lex_1033 eof la = (Some mozcpp_sym_identifier,
      if la = CH_S then ADVANCE 1011 else
      if la = CH_BACKSLASH then ADVANCE 286 else
      if mozcpp_in_identifier la then ADVANCE 1152 else END_STATE)"

definition mozcpp_lex_1034 :: "bool \<Rightarrow> codepoint \<Rightarrow> lex_case" where
  "mozcpp_lex_1034 eof la = (Some mozcpp_sym_identifier,
      if la = CH_S then ADVANCE 1055 else
      if la = CH_BACKSLASH then ADVANCE 286 else
      if mozcpp_in_identifier la then ADVANCE 1152 else END_STATE)"

definition mozcpp_lex_1035 :: "bool \<Rightarrow> codepoint \<Rightarrow> lex_case" where
  "mozcpp_lex_1035 eof la = (Some mozcpp_sym_identifier,
      if la = CH_S then ADVANCE 892 else
      if la = CH_BACKSLASH then ADVANCE 286 else
      if mozcpp_in_identifier la then ADVANCE 1152 else END_STATE)"

definition mozcpp_lex_1036 :: "bool \<Rightarrow> codepoint \<Rightarrow> lex_case" where
  "mozcpp_lex_1036 eof la = (Some mozcpp_sym_identifier,
      if la = CH_S then ADVANCE 1080 else
      if la = CH_BACKSLASH then ADVANCE 286 else
      if mozcpp_in_identifier la then ADVANCE 1152 else END_STATE)"

definition mozcpp_lex_1037 :: "bool \<Rightarrow> codepoint \<Rightarrow> lex_case" where
  "mozcpp_lex_1037 eof la = (Some mozcpp_sym_identifier,
      if la = CH_S then ADVANCE 1049 else
      if la = CH_BACKSLASH then ADVANCE 286 else
      if mozcpp_in_identifier la then ADVANCE 1152 else END_STATE)"

definition mozcpp_lex_1038 :: "bool \<Rightarrow> codepoint \<Rightarrow> lex_case" where
  "mozcpp_lex_1038 eof la = (Some mozcpp_sym_identifier,
      if la = CH_S then ADVANCE 934 else
      if la = CH_BACKSLASH then ADVANCE 286 else
      if mozcpp_in_identifier la then ADVANCE 1152 else END_STATE)"

definition mozcpp_lex_1039 :: "bool \<Rightarrow> codepoint \<Rightarrow> lex_case" where
  "mozcpp_lex_1039 eof la = (Some mozcpp_sym_identifier,
      if la = CH_S then ADVANCE 1054 else
      if la = CH_BACKSLASH then ADVANCE 286 else
      if mozcpp_in_identifier la then ADVANCE 1152 else END_STATE)"

definition mozcpp_lex_1040 :: "bool \<Rightarrow> codepoint \<Rightarrow> lex_case" where
  "mozcpp_lex_1040 eof la = (Some mozcpp_sym_identifier,
      if la = CH_S then ADVANCE 1052 else
      if la = CH_BACKSLASH then ADVANCE 286 else
      if mozcpp_in_identifier la then ADVANCE 1152 else END_STATE)"

definition mozcpp_lex_1041 :: "bool \<Rightarrow> codepoint \<Rightarrow> lex_case" where
  "mozcpp_lex_1041 eof la = (Some mozcpp_sym_identifier,
      if la = CH_S then ADVANCE 990 else
      if la = CH_BACKSLASH then ADVANCE 286 else
      if mozcpp_in_identifier la then ADVANCE 1152 else END_STATE)"

definition mozcpp_lex_1042 :: "bool \<Rightarrow> codepoint \<Rightarrow> lex_case" where
  "mozcpp_lex_1042 eof la = (Some mozcpp_sym_identifier,
      if la = CH_T then ADVANCE 1045 else
      if la = CH_BACKSLASH then ADVANCE 286 else
      if mozcpp_in_identifier la then ADVANCE 1152 else END_STATE)"

definition mozcpp_lex_1043 :: "bool \<Rightarrow> codepoint \<Rightarrow> lex_case" where
  "mozcpp_lex_1043 eof la = (Some mozcpp_sym_identifier,
      if la = CH_T then ADVANCE 490 else
      if la = CH_BACKSLASH then ADVANCE 286 else
      if mozcpp_in_identifier la then ADVANCE 1152 else END_STATE)"

definition mozcpp_lex_1044 :: "bool \<Rightarrow> codepoint \<Rightarrow> lex_case" where
  "mozcpp_lex_1044 eof la = (Some mozcpp_sym_identifier,
      if la = CH_T then ADVANCE 483 else
      if la = CH_BACKSLASH then ADVANCE 286 else
      if mozcpp_in_identifier la then ADVANCE 1152 else END_STATE)"

definition mozcpp_lex_1045 :: "bool \<Rightarrow> codepoint \<Rightarrow> lex_case" where
  "mozcpp_lex_1045 eof la = (Some mozcpp_sym_identifier,
      if la = CH_T then ADVANCE 889 else
      if la = CH_BACKSLASH then ADVANCE 286 else
      if mozcpp_in_identifier la then ADVANCE 1152 else END_STATE)"

definition mozcpp_lex_1046 :: "bool \<Rightarrow> codepoint \<Rightarrow> lex_case" where
  "mozcpp_lex_1046 eof la = (Some mozcpp_sym_identifier,
      if la = CH_T then ADVANCE 956 else
      if la = CH_BACKSLASH then ADVANCE 286 else
      if mozcpp_in_identifier la then ADVANCE 1152 else END_STATE)"

definition mozcpp_lex_1047 :: "bool \<Rightarrow> codepoint \<Rightarrow> lex_case" where
  "mozcpp_lex_1047 eof la = (Some mozcpp_sym_identifier,
      if la = CH_T then ADVANCE 1013 else
      if la = CH_BACKSLASH then ADVANCE 286 else
      if mozcpp_in_identifier la then ADVANCE 1152 else END_STATE)"

definition mozcpp_lex_1048 :: "bool \<Rightarrow> codepoint \<Rightarrow> lex_case" where
  "mozcpp_lex_1048 eof la = (Some mozcpp_sym_identifier,
      if la = CH_T then ADVANCE 837 else
      if la = CH_BACKSLASH then ADVANCE 286 else
      if mozcpp_in_identifier la then ADVANCE 1152 else END_STATE)"

definition mozcpp_lex_1049 :: "bool \<Rightarrow> codepoint \<Rightarrow> lex_case" where
  "mozcpp_lex_1049 eof la = (Some mozcpp_sym_identifier,
      if la = CH_T then ADVANCE 832 else
      if la = CH_BACKSLASH then ADVANCE 286 else
      if mozcpp_in_identifier la then ADVANCE 1152 else END_STATE)"

definition mozcpp_lex_1050 :: "bool \<Rightarrow> codepoint \<Rightarrow> lex_case" where
  "mozcpp_lex_1050 eof la = (Some mozcpp_sym_identifier,
      if la = CH_T then ADVANCE 905 else
      if la = CH_BACKSLASH then ADVANCE 286 else
      if mozcpp_in_identifier la then ADVANCE 1152 else END_STATE)"

definition mozcpp_lex_1051 :: "bool \<Rightarrow> codepoint \<Rightarrow> lex_case" where
  "mozcpp_lex_1051 eof la = (Some mozcpp_sym_identifier,
      if la = CH_T then ADVANCE 1015 else
      if la = CH_BACKSLASH then ADVANCE 286 else
      if mozcpp_in_identifier la then ADVANCE 1152 else END_STATE)"

definition mozcpp_lex_1052 :: "bool \<Rightarrow> codepoint \<Rightarrow> lex_case" where
  "mozcpp_lex_1052 eof la = (Some mozcpp_sym_identifier,
      if la = CH_T then ADVANCE 1026 else
      if la = CH_BACKSLASH then ADVANCE 286 else
      if mozcpp_in_identifier la then ADVANCE 1152 else END_STATE)"

definition mozcpp_lex_1053 :: "bool \<Rightarrow> codepoint \<Rightarrow> lex_case" where
  "mozcpp_lex_1053 eof la = (Some mozcpp_sym_identifier,
      if la = CH_T then ADVANCE 1062 else
      if la = CH_BACKSLASH then ADVANCE 286 else
      if mozcpp_in_identifier la then ADVANCE 1152 else END_STATE)"

definition mozcpp_lex_1054 :: "bool \<Rightarrow> codepoint \<Rightarrow> lex_case" where
  "mozcpp_lex_1054 eof la = (Some mozcpp_sym_identifier,
      if la = CH_T then ADVANCE 852 else
      if la = CH_BACKSLASH then ADVANCE 286 else
      if mozcpp_in_identifier la then ADVANCE 1152 else END_STATE)"

definition mozcpp_lex_1055 :: "bool \<Rightarrow> codepoint \<Rightarrow> lex_case" where
  "mozcpp_lex_1055 eof la = (Some mozcpp_sym_identifier,
      if la = CH_T then ADVANCE 851 else
      if la = CH_BACKSLASH then ADVANCE 286 else
      if mozcpp_in_identifier la then ADVANCE 1152 else END_STATE)"

definition mozcpp_lex_1056 :: "bool \<Rightarrow> codepoint \<Rightarrow> lex_case" where
  "mozcpp_lex_1056 eof la = (Some mozcpp_sym_identifier,
      if la = CH_T then ADVANCE 990 else
      if la = CH_BACKSLASH then ADVANCE 286 else
      if mozcpp_in_identifier la then ADVANCE 1152 else END_STATE)"

definition mozcpp_lex_1057 :: "bool \<Rightarrow> codepoint \<Rightarrow> lex_case" where
  "mozcpp_lex_1057 eof la = (Some mozcpp_sym_identifier,
      if la = CH_U then ADVANCE 490 else
      if la = CH_BACKSLASH then ADVANCE 286 else
      if mozcpp_in_identifier la then ADVANCE 1152 else END_STATE)"

definition mozcpp_lex_1058 :: "bool \<Rightarrow> codepoint \<Rightarrow> lex_case" where
  "mozcpp_lex_1058 eof la = (Some mozcpp_sym_identifier,
      if la = CH_U then ADVANCE 949 else
      if la = CH_BACKSLASH then ADVANCE 286 else
      if mozcpp_in_identifier la then ADVANCE 1152 else END_STATE)"

definition mozcpp_lex_1059 :: "bool \<Rightarrow> codepoint \<Rightarrow> lex_case" where
  "mozcpp_lex_1059 eof la = (Some mozcpp_sym_identifier,
      if la = CH_U then ADVANCE 1030 else
      if la = CH_BACKSLASH then ADVANCE 286 else
      if mozcpp_in_identifier la then ADVANCE 1152 else END_STATE)"

definition mozcpp_lex_1060 :: "bool \<Rightarrow> codepoint \<Rightarrow> lex_case" where
  "mozcpp_lex_1060 eof la = (Some mozcpp_sym_identifier,
      if la = CH_U then ADVANCE 891 else
      if la = CH_BACKSLASH then ADVANCE 286 else
      if mozcpp_in_identifier la then ADVANCE 1152 else END_STATE)"

definition mozcpp_lex_1061 :: "bool \<Rightarrow> codepoint \<Rightarrow> lex_case" where
  "mozcpp_lex_1061 eof la = (Some mozcpp_sym_identifier,
      if la = CH_U then ADVANCE 951 else
      if la = CH_BACKSLASH then ADVANCE 286 else
      if mozcpp_in_identifier la then ADVANCE 1152 else END_STATE)"

definition mozcpp_lex_1062 :: "bool \<Rightarrow> codepoint \<Rightarrow> lex_case" where
  "mozcpp_lex_1062 eof la = (Some mozcpp_sym_identifier,
      if la = CH_U then ADVANCE 1036 else
      if la = CH_BACKSLASH then ADVANCE 286 else
      if mozcpp_in_identifier la then ADVANCE 1152 else END_STATE)"

definition mozcpp_lex_1063 :: "bool \<Rightarrow> codepoint \<Rightarrow> lex_case" where
  "mozcpp_lex_1063 eof la = (Some mozcpp_sym_identifier,
      if la = CH_V then ADVANCE 489 else
      if la = CH_BACKSLASH then ADVANCE 286 else
      if mozcpp_in_identifier la then ADVANCE 1152 else END_STATE)"

definition mozcpp_lex_1064 :: "bool \<Rightarrow> codepoint \<Rightarrow> lex_case" where
  "mozcpp_lex_1064 eof la = (Some mozcpp_sym_identifier,
      if la = CH_V then ADVANCE 939 else
      if la = CH_BACKSLASH then ADVANCE 286 else
      if mozcpp_in_identifier la then ADVANCE 1152 else END_STATE)"

definition mozcpp_lex_1065 :: "bool \<Rightarrow> codepoint \<Rightarrow> lex_case" where
  "mozcpp_lex_1065 eof la = (Some mozcpp_sym_identifier,
      if la = CH_W then ADVANCE 709 else
      if la = CH_BACKSLASH then ADVANCE 286 else
      if (CH_0 \<le> la \<and> la \<le> CH_9) \<or> (CH_A \<le> la \<and> la \<le> CH_Z) \<or> la
        = CH_UNDERSCORE then ADVANCE 792 else
      if mozcpp_in_identifier la then ADVANCE 1152 else END_STATE)"

definition mozcpp_lex_1066 :: "bool \<Rightarrow> codepoint \<Rightarrow> lex_case" where
  "mozcpp_lex_1066 eof la = (Some mozcpp_sym_identifier,
      if la = CH_W then ADVANCE 993 else
      if la = CH_BACKSLASH then ADVANCE 286 else
      if mozcpp_in_identifier la then ADVANCE 1152 else END_STATE)"

definition mozcpp_lex_1067 :: "bool \<Rightarrow> codepoint \<Rightarrow> lex_case" where
  "mozcpp_lex_1067 eof la = (Some mozcpp_sym_identifier,
      if la = CH_W then ADVANCE 988 else
      if la = CH_BACKSLASH then ADVANCE 286 else
      if mozcpp_in_identifier la then ADVANCE 1152 else END_STATE)"

definition mozcpp_lex_1068 :: "bool \<Rightarrow> codepoint \<Rightarrow> lex_case" where
  "mozcpp_lex_1068 eof la = (Some mozcpp_sym_identifier,
      if la = CH_W then ADVANCE 706 else
      if la = CH_BACKSLASH then ADVANCE 286 else
      if (CH_0 \<le> la \<and> la \<le> CH_9) \<or> (CH_A \<le> la \<and> la \<le> CH_Z) \<or> la
        = CH_UNDERSCORE then ADVANCE 792 else
      if mozcpp_in_identifier la then ADVANCE 1152 else END_STATE)"

definition mozcpp_lex_1069 :: "bool \<Rightarrow> codepoint \<Rightarrow> lex_case" where
  "mozcpp_lex_1069 eof la = (Some mozcpp_sym_identifier,
      if la = CH_Y then ADVANCE 1045 else
      if la = CH_BACKSLASH then ADVANCE 286 else
      if mozcpp_in_identifier la then ADVANCE 1152 else END_STATE)"

definition mozcpp_lex_1070 :: "bool \<Rightarrow> codepoint \<Rightarrow> lex_case" where
  "mozcpp_lex_1070 eof la = (Some mozcpp_sym_identifier,
      if la = CH_Y then ADVANCE 490 else
      if la = CH_BACKSLASH then ADVANCE 286 else
      if mozcpp_in_identifier la then ADVANCE 1152 else END_STATE)"

definition mozcpp_lex_1071 :: "bool \<Rightarrow> codepoint \<Rightarrow> lex_case" where
  "mozcpp_lex_1071 eof la = (Some mozcpp_sym_identifier,
      if la = CH_Y then ADVANCE 1008 else
      if la = CH_BACKSLASH then ADVANCE 286 else
      if mozcpp_in_identifier la then ADVANCE 1152 else END_STATE)"

definition mozcpp_lex_1072 :: "bool \<Rightarrow> codepoint \<Rightarrow> lex_case" where
  "mozcpp_lex_1072 eof la = (Some mozcpp_sym_identifier,
      if la = CH_Z then ADVANCE 490 else
      if la = CH_BACKSLASH then ADVANCE 286 else
      if mozcpp_in_identifier la then ADVANCE 1152 else END_STATE)"

definition mozcpp_lex_1073 :: "bool \<Rightarrow> codepoint \<Rightarrow> lex_case" where
  "mozcpp_lex_1073 eof la = (Some mozcpp_sym_identifier,
      if la = CH_Z then ADVANCE 897 else
      if la = CH_BACKSLASH then ADVANCE 286 else
      if mozcpp_in_identifier la then ADVANCE 1152 else END_STATE)"

definition mozcpp_lex_1074 :: "bool \<Rightarrow> codepoint \<Rightarrow> lex_case" where
  "mozcpp_lex_1074 eof la = (Some mozcpp_sym_identifier,
      if la = CH_BACKSLASH then ADVANCE 286 else
      if la = CH_UNDERSCORE then ADVANCE 920 else
      if mozcpp_in_identifier la then ADVANCE 1152 else END_STATE)"

definition mozcpp_lex_1075 :: "bool \<Rightarrow> codepoint \<Rightarrow> lex_case" where
  "mozcpp_lex_1075 eof la = (Some mozcpp_sym_identifier,
      if la = CH_BACKSLASH then ADVANCE 286 else
      if la = CH_UNDERSCORE then ADVANCE 825 else
      if mozcpp_in_identifier la then ADVANCE 1152 else END_STATE)"

definition mozcpp_lex_1076 :: "bool \<Rightarrow> codepoint \<Rightarrow> lex_case" where
  "mozcpp_lex_1076 eof la = (Some mozcpp_sym_identifier,
      if la = CH_BACKSLASH then ADVANCE 286 else
      if la = CH_UNDERSCORE then ADVANCE 1009 else
      if mozcpp_in_identifier la then ADVANCE 1152 else END_STATE)"

definition mozcpp_lex_1077 :: "bool \<Rightarrow> codepoint \<Rightarrow> lex_case" where
  "mozcpp_lex_1077 eof la = (Some mozcpp_sym_identifier,
      if la = CH_BACKSLASH then ADVANCE 286 else
      if la = CH_UNDERSCORE then ADVANCE 1091 else
      if mozcpp_in_identifier la then ADVANCE 1152 else END_STATE)"

definition mozcpp_lex_1078 :: "bool \<Rightarrow> codepoint \<Rightarrow> lex_case" where
  "mozcpp_lex_1078 eof la = (Some mozcpp_sym_identifier,
      if la = CH_BACKSLASH then ADVANCE 286 else
      if la = CH_UNDERSCORE then ADVANCE 1139 else
      if mozcpp_in_identifier la then ADVANCE 1152 else END_STATE)"

definition mozcpp_lex_1079 :: "bool \<Rightarrow> codepoint \<Rightarrow> lex_case" where
  "mozcpp_lex_1079 eof la = (Some mozcpp_sym_identifier,
      if la = CH_BACKSLASH then ADVANCE 286 else
      if la = CH_UNDERSCORE then ADVANCE 1043 else
      if mozcpp_in_identifier la then ADVANCE 1152 else END_STATE)"

definition mozcpp_lex_1080 :: "bool \<Rightarrow> codepoint \<Rightarrow> lex_case" where
  "mozcpp_lex_1080 eof la = (Some mozcpp_sym_identifier,
      if la = CH_BACKSLASH then ADVANCE 286 else
      if la = CH_UNDERSCORE then ADVANCE 921 else
      if mozcpp_in_identifier la then ADVANCE 1152 else END_STATE)"

definition mozcpp_lex_1081 :: "bool \<Rightarrow> codepoint \<Rightarrow> lex_case" where
  "mozcpp_lex_1081 eof la = (Some mozcpp_sym_identifier,
      if la = CH_BACKSLASH then ADVANCE 286 else
      if la = CH_UNDERSCORE then ADVANCE 1092 else
      if mozcpp_in_identifier la then ADVANCE 1152 else END_STATE)"

definition mozcpp_lex_1082 :: "bool \<Rightarrow> codepoint \<Rightarrow> lex_case" where
  "mozcpp_lex_1082 eof la = (Some mozcpp_sym_identifier,
      if la = CH_BACKSLASH then ADVANCE 286 else
      if la = CH_UNDERSCORE then ADVANCE 1039 else
      if mozcpp_in_identifier la then ADVANCE 1152 else END_STATE)"

definition mozcpp_lex_1083 :: "bool \<Rightarrow> codepoint \<Rightarrow> lex_case" where
  "mozcpp_lex_1083 eof la = (Some mozcpp_sym_identifier,
      if la = CH_BACKSLASH then ADVANCE 286 else
      if la = CH_UNDERSCORE then ADVANCE 1040 else
      if mozcpp_in_identifier la then ADVANCE 1152 else END_STATE)"

definition mozcpp_lex_1084 :: "bool \<Rightarrow> codepoint \<Rightarrow> lex_case" where
  "mozcpp_lex_1084 eof la = (Some mozcpp_sym_identifier,
      if la = CH_BACKSLASH then ADVANCE 286 else
      if la = CH_a then ADVANCE 1119 else
      if la = CH_l then ADVANCE 1131 else
      if mozcpp_in_identifier la then ADVANCE 1152 else END_STATE)"

definition mozcpp_lex_1085 :: "bool \<Rightarrow> codepoint \<Rightarrow> lex_case" where
  "mozcpp_lex_1085 eof la = (Some mozcpp_sym_identifier,
      if la = CH_BACKSLASH then ADVANCE 286 else
      if la = CH_a then ADVANCE 1119 else
      if mozcpp_in_identifier la then ADVANCE 1152 else END_STATE)"

definition mozcpp_lex_1086 :: "bool \<Rightarrow> codepoint \<Rightarrow> lex_case" where
  "mozcpp_lex_1086 eof la = (Some mozcpp_sym_identifier,
      if la = CH_BACKSLASH then ADVANCE 286 else
      if la = CH_a then ADVANCE 1148 else
      if mozcpp_in_identifier la then ADVANCE 1152 else END_STATE)"

definition mozcpp_lex_1087 :: "bool \<Rightarrow> codepoint \<Rightarrow> lex_case" where
  "mozcpp_lex_1087 eof la = (Some mozcpp_sym_identifier,
      if la = CH_BACKSLASH then ADVANCE 286 else
      if la = CH_a then ADVANCE 1138 else
      if mozcpp_in_identifier la then ADVANCE 1152 else END_STATE)"

definition mozcpp_lex_1088 :: "bool \<Rightarrow> codepoint \<Rightarrow> lex_case" where
  "mozcpp_lex_1088 eof la = (Some mozcpp_sym_identifier,
      if la = CH_BACKSLASH then ADVANCE 286 else
      if la = CH_a then ADVANCE 1134 else
      if mozcpp_in_identifier la then ADVANCE 1152 else END_STATE)"

definition mozcpp_lex_1089 :: "bool \<Rightarrow> codepoint \<Rightarrow> lex_case" where
  "mozcpp_lex_1089 eof la = (Some mozcpp_sym_identifier,
      if la = CH_BACKSLASH then ADVANCE 286 else
      if la = CH_a then ADVANCE 1139 else
      if mozcpp_in_identifier la then ADVANCE 1152 else END_STATE)"

definition mozcpp_lex_1090 :: "bool \<Rightarrow> codepoint \<Rightarrow> lex_case" where
  "mozcpp_lex_1090 eof la = (Some mozcpp_sym_identifier,
      if la = CH_BACKSLASH then ADVANCE 286 else
      if la = CH_a then ADVANCE 1136 else
      if mozcpp_in_identifier la then ADVANCE 1152 else END_STATE)"

definition mozcpp_lex_1091 :: "bool \<Rightarrow> codepoint \<Rightarrow> lex_case" where
  "mozcpp_lex_1091 eof la = (Some mozcpp_sym_identifier,
      if la = CH_BACKSLASH then ADVANCE 286 else
      if la = CH_a then ADVANCE 1120 else
      if mozcpp_in_identifier la then ADVANCE 1152 else END_STATE)"

definition mozcpp_lex_1092 :: "bool \<Rightarrow> codepoint \<Rightarrow> lex_case" where
  "mozcpp_lex_1092 eof la = (Some mozcpp_sym_identifier,
      if la = CH_BACKSLASH then ADVANCE 286 else
      if la = CH_a then ADVANCE 1145 else
      if mozcpp_in_identifier la then ADVANCE 1152 else END_STATE)"

definition mozcpp_lex_1093 :: "bool \<Rightarrow> codepoint \<Rightarrow> lex_case" where
  "mozcpp_lex_1093 eof la = (Some mozcpp_sym_identifier,
      if la = CH_BACKSLASH then ADVANCE 286 else
      if la = CH_a then ADVANCE 1149 else
      if mozcpp_in_identifier la then ADVANCE 1152 else END_STATE)"

definition mozcpp_lex_1094 :: "bool \<Rightarrow> codepoint \<Rightarrow> lex_case" where
  "mozcpp_lex_1094 eof la = (Some mozcpp_sym_identifier,
      if la = CH_BACKSLASH then ADVANCE 286 else
      if la = CH_b then ADVANCE 1121 else
      if mozcpp_in_identifier la then ADVANCE 1152 else END_STATE)"

definition mozcpp_lex_1095 :: "bool \<Rightarrow> codepoint \<Rightarrow> lex_case" where
  "mozcpp_lex_1095 eof la = (Some mozcpp_sym_identifier,
      if la = CH_BACKSLASH then ADVANCE 286 else
      if la = CH_c then ADVANCE 1078 else
      if mozcpp_in_identifier la then ADVANCE 1152 else END_STATE)"

definition mozcpp_lex_1096 :: "bool \<Rightarrow> codepoint \<Rightarrow> lex_case" where
  "mozcpp_lex_1096 eof la = (Some mozcpp_sym_identifier,
      if la = CH_BACKSLASH then ADVANCE 286 else
      if la = CH_c then ADVANCE 1110 else
      if mozcpp_in_identifier la then ADVANCE 1152 else END_STATE)"

definition mozcpp_lex_1097 :: "bool \<Rightarrow> codepoint \<Rightarrow> lex_case" where
  "mozcpp_lex_1097 eof la = (Some mozcpp_sym_identifier,
      if la = CH_BACKSLASH then ADVANCE 286 else
      if la = CH_d then ADVANCE 490 else
      if mozcpp_in_identifier la then ADVANCE 1152 else END_STATE)"

definition mozcpp_lex_1098 :: "bool \<Rightarrow> codepoint \<Rightarrow> lex_case" where
  "mozcpp_lex_1098 eof la = (Some mozcpp_sym_identifier,
      if la = CH_BACKSLASH then ADVANCE 286 else
      if la = CH_d then ADVANCE 1113 else
      if mozcpp_in_identifier la then ADVANCE 1152 else END_STATE)"

definition mozcpp_lex_1099 :: "bool \<Rightarrow> codepoint \<Rightarrow> lex_case" where
  "mozcpp_lex_1099 eof la = (Some mozcpp_sym_identifier,
      if la = CH_BACKSLASH then ADVANCE 286 else
      if la = CH_e then ADVANCE 490 else
      if mozcpp_in_identifier la then ADVANCE 1152 else END_STATE)"

definition mozcpp_lex_1100 :: "bool \<Rightarrow> codepoint \<Rightarrow> lex_case" where
  "mozcpp_lex_1100 eof la = (Some mozcpp_sym_identifier,
      if la = CH_BACKSLASH then ADVANCE 286 else
      if la = CH_e then ADVANCE 559 else
      if mozcpp_in_identifier la then ADVANCE 1152 else END_STATE)"

definition mozcpp_lex_1101 :: "bool \<Rightarrow> codepoint \<Rightarrow> lex_case" where
  "mozcpp_lex_1101 eof la = (Some mozcpp_sym_identifier,
      if la = CH_BACKSLASH then ADVANCE 286 else
      if la = CH_e then ADVANCE 561 else
      if mozcpp_in_identifier la then ADVANCE 1152 else END_STATE)"

definition mozcpp_lex_1102 :: "bool \<Rightarrow> codepoint \<Rightarrow> lex_case" where
  "mozcpp_lex_1102 eof la = (Some mozcpp_sym_identifier,
      if la = CH_BACKSLASH then ADVANCE 286 else
      if la = CH_e then ADVANCE 1087 else
      if mozcpp_in_identifier la then ADVANCE 1152 else END_STATE)"

definition mozcpp_lex_1103 :: "bool \<Rightarrow> codepoint \<Rightarrow> lex_case" where
  "mozcpp_lex_1103 eof la = (Some mozcpp_sym_identifier,
      if la = CH_BACKSLASH then ADVANCE 286 else
      if la = CH_e then ADVANCE 1078 else
      if mozcpp_in_identifier la then ADVANCE 1152 else END_STATE)"

definition mozcpp_lex_1104 :: "bool \<Rightarrow> codepoint \<Rightarrow> lex_case" where
  "mozcpp_lex_1104 eof la = (Some mozcpp_sym_identifier,
      if la = CH_BACKSLASH then ADVANCE 286 else
      if la = CH_f then ADVANCE 1106 else
      if mozcpp_in_identifier la then ADVANCE 1152 else END_STATE)"

definition mozcpp_lex_1105 :: "bool \<Rightarrow> codepoint \<Rightarrow> lex_case" where
  "mozcpp_lex_1105 eof la = (Some mozcpp_sym_identifier,
      if la = CH_BACKSLASH then ADVANCE 286 else
      if la = CH_f then ADVANCE 1087 else
      if la = CH_l then ADVANCE 1102 else
      if mozcpp_in_identifier la then ADVANCE 1152 else END_STATE)"

definition mozcpp_lex_1106 :: "bool \<Rightarrow> codepoint \<Rightarrow> lex_case" where
  "mozcpp_lex_1106 eof la = (Some mozcpp_sym_identifier,
      if la = CH_BACKSLASH then ADVANCE 286 else
      if la = CH_f then ADVANCE 1078 else
      if mozcpp_in_identifier la then ADVANCE 1152 else END_STATE)"

definition mozcpp_lex_1107 :: "bool \<Rightarrow> codepoint \<Rightarrow> lex_case" where
  "mozcpp_lex_1107 eof la = (Some mozcpp_sym_identifier,
      if la = CH_BACKSLASH then ADVANCE 286 else
      if la = CH_g then ADVANCE 1126 else
      if mozcpp_in_identifier la then ADVANCE 1152 else END_STATE)"

definition mozcpp_lex_1108 :: "bool \<Rightarrow> codepoint \<Rightarrow> lex_case" where
  "mozcpp_lex_1108 eof la = (Some mozcpp_sym_identifier,
      if la = CH_BACKSLASH then ADVANCE 286 else
      if la = CH_g then ADVANCE 1081 else
      if la = CH_z then ADVANCE 1103 else
      if mozcpp_in_identifier la then ADVANCE 1152 else END_STATE)"

definition mozcpp_lex_1109 :: "bool \<Rightarrow> codepoint \<Rightarrow> lex_case" where
  "mozcpp_lex_1109 eof la = (Some mozcpp_sym_identifier,
      if la = CH_BACKSLASH then ADVANCE 286 else
      if la = CH_h then ADVANCE 1088 else
      if mozcpp_in_identifier la then ADVANCE 1152 else END_STATE)"

definition mozcpp_lex_1110 :: "bool \<Rightarrow> codepoint \<Rightarrow> lex_case" where
  "mozcpp_lex_1110 eof la = (Some mozcpp_sym_identifier,
      if la = CH_BACKSLASH then ADVANCE 286 else
      if la = CH_h then ADVANCE 1090 else
      if mozcpp_in_identifier la then ADVANCE 1152 else END_STATE)"

definition mozcpp_lex_1111 :: "bool \<Rightarrow> codepoint \<Rightarrow> lex_case" where
  "mozcpp_lex_1111 eof la = (Some mozcpp_sym_identifier,
      if la = CH_BACKSLASH then ADVANCE 286 else
      if la = CH_i then ADVANCE 1108 else
      if la = CH_s then ADVANCE 1112 else
      if mozcpp_in_identifier la then ADVANCE 1152 else END_STATE)"

definition mozcpp_lex_1112 :: "bool \<Rightarrow> codepoint \<Rightarrow> lex_case" where
  "mozcpp_lex_1112 eof la = (Some mozcpp_sym_identifier,
      if la = CH_BACKSLASH then ADVANCE 286 else
      if la = CH_i then ADVANCE 1150 else
      if mozcpp_in_identifier la then ADVANCE 1152 else END_STATE)"

definition mozcpp_lex_1113 :: "bool \<Rightarrow> codepoint \<Rightarrow> lex_case" where
  "mozcpp_lex_1113 eof la = (Some mozcpp_sym_identifier,
      if la = CH_BACKSLASH then ADVANCE 286 else
      if la = CH_i then ADVANCE 1104 else
      if mozcpp_in_identifier la then ADVANCE 1152 else END_STATE)"

definition mozcpp_lex_1114 :: "bool \<Rightarrow> codepoint \<Rightarrow> lex_case" where
  "mozcpp_lex_1114 eof la = (Some mozcpp_sym_identifier,
      if la = CH_BACKSLASH then ADVANCE 286 else
      if la = CH_i then ADVANCE 1107 else
      if mozcpp_in_identifier la then ADVANCE 1152 else END_STATE)"

definition mozcpp_lex_1115 :: "bool \<Rightarrow> codepoint \<Rightarrow> lex_case" where
  "mozcpp_lex_1115 eof la = (Some mozcpp_sym_identifier,
      if la = CH_BACKSLASH then ADVANCE 286 else
      if la = CH_i then ADVANCE 1095 else
      if mozcpp_in_identifier la then ADVANCE 1152 else END_STATE)"

definition mozcpp_lex_1116 :: "bool \<Rightarrow> codepoint \<Rightarrow> lex_case" where
  "mozcpp_lex_1116 eof la = (Some mozcpp_sym_identifier,
      if la = CH_BACKSLASH then ADVANCE 286 else
      if la = CH_i then ADVANCE 1097 else
      if mozcpp_in_identifier la then ADVANCE 1152 else END_STATE)"

definition mozcpp_lex_1117 :: "bool \<Rightarrow> codepoint \<Rightarrow> lex_case" where
  "mozcpp_lex_1117 eof la = (Some mozcpp_sym_identifier,
      if la = CH_BACKSLASH then ADVANCE 286 else
      if la = CH_i then ADVANCE 1125 else
      if mozcpp_in_identifier la then ADVANCE 1152 else END_STATE)"

definition mozcpp_lex_1118 :: "bool \<Rightarrow> codepoint \<Rightarrow> lex_case" where
  "mozcpp_lex_1118 eof la = (Some mozcpp_sym_identifier,
      if la = CH_BACKSLASH then ADVANCE 286 else
      if la = CH_l then ADVANCE 490 else
      if mozcpp_in_identifier la then ADVANCE 1152 else END_STATE)"

definition mozcpp_lex_1119 :: "bool \<Rightarrow> codepoint \<Rightarrow> lex_case" where
  "mozcpp_lex_1119 eof la = (Some mozcpp_sym_identifier,
      if la = CH_BACKSLASH then ADVANCE 286 else
      if la = CH_l then ADVANCE 1137 else
      if mozcpp_in_identifier la then ADVANCE 1152 else END_STATE)"

definition mozcpp_lex_1120 :: "bool \<Rightarrow> codepoint \<Rightarrow> lex_case" where
  "mozcpp_lex_1120 eof la = (Some mozcpp_sym_identifier,
      if la = CH_BACKSLASH then ADVANCE 286 else
      if la = CH_l then ADVANCE 1114 else
      if mozcpp_in_identifier la then ADVANCE 1152 else END_STATE)"

definition mozcpp_lex_1121 :: "bool \<Rightarrow> codepoint \<Rightarrow> lex_case" where
  "mozcpp_lex_1121 eof la = (Some mozcpp_sym_identifier,
      if la = CH_BACKSLASH then ADVANCE 286 else
      if la = CH_l then ADVANCE 1099 else
      if mozcpp_in_identifier la then ADVANCE 1152 else END_STATE)"

definition mozcpp_lex_1122 :: "bool \<Rightarrow> codepoint \<Rightarrow> lex_case" where
  "mozcpp_lex_1122 eof la = (Some mozcpp_sym_identifier,
      if la = CH_BACKSLASH then ADVANCE 286 else
      if la = CH_l then ADVANCE 1131 else
      if mozcpp_in_identifier la then ADVANCE 1152 else END_STATE)"

definition mozcpp_lex_1123 :: "bool \<Rightarrow> codepoint \<Rightarrow> lex_case" where
  "mozcpp_lex_1123 eof la = (Some mozcpp_sym_identifier,
      if la = CH_BACKSLASH then ADVANCE 286 else
      if la = CH_m then ADVANCE 1115 else
      if mozcpp_in_identifier la then ADVANCE 1152 else END_STATE)"

definition mozcpp_lex_1124 :: "bool \<Rightarrow> codepoint \<Rightarrow> lex_case" where
  "mozcpp_lex_1124 eof la = (Some mozcpp_sym_identifier,
      if la = CH_BACKSLASH then ADVANCE 286 else
      if la = CH_n then ADVANCE 1140 else
      if mozcpp_in_identifier la then ADVANCE 1152 else END_STATE)"

definition mozcpp_lex_1125 :: "bool \<Rightarrow> codepoint \<Rightarrow> lex_case" where
  "mozcpp_lex_1125 eof la = (Some mozcpp_sym_identifier,
      if la = CH_BACKSLASH then ADVANCE 286 else
      if la = CH_n then ADVANCE 1141 else
      if mozcpp_in_identifier la then ADVANCE 1152 else END_STATE)"

definition mozcpp_lex_1126 :: "bool \<Rightarrow> codepoint \<Rightarrow> lex_case" where
  "mozcpp_lex_1126 eof la = (Some mozcpp_sym_identifier,
      if la = CH_BACKSLASH then ADVANCE 286 else
      if la = CH_n then ADVANCE 1078 else
      if mozcpp_in_identifier la then ADVANCE 1152 else END_STATE)"

definition mozcpp_lex_1127 :: "bool \<Rightarrow> codepoint \<Rightarrow> lex_case" where
  "mozcpp_lex_1127 eof la = (Some mozcpp_sym_identifier,
      if la = CH_BACKSLASH then ADVANCE 286 else
      if la = CH_o then ADVANCE 1146 else
      if mozcpp_in_identifier la then ADVANCE 1152 else END_STATE)"

definition mozcpp_lex_1128 :: "bool \<Rightarrow> codepoint \<Rightarrow> lex_case" where
  "mozcpp_lex_1128 eof la = (Some mozcpp_sym_identifier,
      if la = CH_BACKSLASH then ADVANCE 286 else
      if la = CH_o then ADVANCE 1123 else
      if mozcpp_in_identifier la then ADVANCE 1152 else END_STATE)"

definition mozcpp_lex_1129 :: "bool \<Rightarrow> codepoint \<Rightarrow> lex_case" where
  "mozcpp_lex_1129 eof la = (Some mozcpp_sym_identifier,
      if la = CH_BACKSLASH then ADVANCE 286 else
      if la = CH_o then ADVANCE 1118 else
      if mozcpp_in_identifier la then ADVANCE 1152 else END_STATE)"

definition mozcpp_lex_1130 :: "bool \<Rightarrow> codepoint \<Rightarrow> lex_case" where
  "mozcpp_lex_1130 eof la = (Some mozcpp_sym_identifier,
      if la = CH_BACKSLASH then ADVANCE 286 else
      if la = CH_o then ADVANCE 1116 else
      if mozcpp_in_identifier la then ADVANCE 1152 else END_STATE)"

definition mozcpp_lex_1131 :: "bool \<Rightarrow> codepoint \<Rightarrow> lex_case" where
  "mozcpp_lex_1131 eof la = (Some mozcpp_sym_identifier,
      if la = CH_BACKSLASH then ADVANCE 286 else
      if la = CH_o then ADVANCE 1089 else
      if mozcpp_in_identifier la then ADVANCE 1152 else END_STATE)"

definition mozcpp_lex_1132 :: "bool \<Rightarrow> codepoint \<Rightarrow> lex_case" where
  "mozcpp_lex_1132 eof la = (Some mozcpp_sym_identifier,
      if la = CH_BACKSLASH then ADVANCE 286 else
      if la = CH_o then ADVANCE 1129 else
      if mozcpp_in_identifier la then ADVANCE 1152 else END_STATE)"

definition mozcpp_lex_1133 :: "bool \<Rightarrow> codepoint \<Rightarrow> lex_case" where
  "mozcpp_lex_1133 eof la = (Some mozcpp_sym_identifier,
      if la = CH_BACKSLASH then ADVANCE 286 else
      if la = CH_r then ADVANCE 1098 else
      if mozcpp_in_identifier la then ADVANCE 1152 else END_STATE)"

definition mozcpp_lex_1134 :: "bool \<Rightarrow> codepoint \<Rightarrow> lex_case" where
  "mozcpp_lex_1134 eof la = (Some mozcpp_sym_identifier,
      if la = CH_BACKSLASH then ADVANCE 286 else
      if la = CH_r then ADVANCE 485 else
      if mozcpp_in_identifier la then ADVANCE 1152 else END_STATE)"

definition mozcpp_lex_1135 :: "bool \<Rightarrow> codepoint \<Rightarrow> lex_case" where
  "mozcpp_lex_1135 eof la = (Some mozcpp_sym_identifier,
      if la = CH_BACKSLASH then ADVANCE 286 else
      if la = CH_r then ADVANCE 1147 else
      if mozcpp_in_identifier la then ADVANCE 1152 else END_STATE)"

definition mozcpp_lex_1136 :: "bool \<Rightarrow> codepoint \<Rightarrow> lex_case" where
  "mozcpp_lex_1136 eof la = (Some mozcpp_sym_identifier,
      if la = CH_BACKSLASH then ADVANCE 286 else
      if la = CH_r then ADVANCE 1078 else
      if mozcpp_in_identifier la then ADVANCE 1152 else END_STATE)"

definition mozcpp_lex_1137 :: "bool \<Rightarrow> codepoint \<Rightarrow> lex_case" where
  "mozcpp_lex_1137 eof la = (Some mozcpp_sym_identifier,
      if la = CH_BACKSLASH then ADVANCE 286 else
      if la = CH_s then ADVANCE 1101 else
      if mozcpp_in_identifier la then ADVANCE 1152 else END_STATE)"

definition mozcpp_lex_1138 :: "bool \<Rightarrow> codepoint \<Rightarrow> lex_case" where
  "mozcpp_lex_1138 eof la = (Some mozcpp_sym_identifier,
      if la = CH_BACKSLASH then ADVANCE 286 else
      if la = CH_s then ADVANCE 1142 else
      if mozcpp_in_identifier la then ADVANCE 1152 else END_STATE)"

definition mozcpp_lex_1139 :: "bool \<Rightarrow> codepoint \<Rightarrow> lex_case" where
  "mozcpp_lex_1139 eof la = (Some mozcpp_sym_identifier,
      if la = CH_BACKSLASH then ADVANCE 286 else
      if la = CH_t then ADVANCE 490 else
      if mozcpp_in_identifier la then ADVANCE 1152 else END_STATE)"

definition mozcpp_lex_1140 :: "bool \<Rightarrow> codepoint \<Rightarrow> lex_case" where
  "mozcpp_lex_1140 eof la = (Some mozcpp_sym_identifier,
      if la = CH_BACKSLASH then ADVANCE 286 else
      if la = CH_t then ADVANCE 484 else
      if mozcpp_in_identifier la then ADVANCE 1152 else END_STATE)"

definition mozcpp_lex_1141 :: "bool \<Rightarrow> codepoint \<Rightarrow> lex_case" where
  "mozcpp_lex_1141 eof la = (Some mozcpp_sym_identifier,
      if la = CH_BACKSLASH then ADVANCE 286 else
      if la = CH_t then ADVANCE 821 else
      if mozcpp_in_identifier la then ADVANCE 1152 else END_STATE)"

definition mozcpp_lex_1142 :: "bool \<Rightarrow> codepoint \<Rightarrow> lex_case" where
  "mozcpp_lex_1142 eof la = (Some mozcpp_sym_identifier,
      if la = CH_BACKSLASH then ADVANCE 286 else
      if la = CH_t then ADVANCE 822 else
      if mozcpp_in_identifier la then ADVANCE 1152 else END_STATE)"

definition mozcpp_lex_1143 :: "bool \<Rightarrow> codepoint \<Rightarrow> lex_case" where
  "mozcpp_lex_1143 eof la = (Some mozcpp_sym_identifier,
      if la = CH_BACKSLASH then ADVANCE 286 else
      if la = CH_t then ADVANCE 1133 else
      if mozcpp_in_identifier la then ADVANCE 1152 else END_STATE)"

definition mozcpp_lex_1144 :: "bool \<Rightarrow> codepoint \<Rightarrow> lex_case" where
  "mozcpp_lex_1144 eof la = (Some mozcpp_sym_identifier,
      if la = CH_BACKSLASH then ADVANCE 286 else
      if la = CH_t then ADVANCE 1136 else
      if mozcpp_in_identifier la then ADVANCE 1152 else END_STATE)"

definition mozcpp_lex_1145 :: "bool \<Rightarrow> codepoint \<Rightarrow> lex_case" where
  "mozcpp_lex_1145 eof la = (Some mozcpp_sym_identifier,
      if la = CH_BACKSLASH then ADVANCE 286 else
      if la = CH_t then ADVANCE 1128 else
      if mozcpp_in_identifier la then ADVANCE 1152 else END_STATE)"

definition mozcpp_lex_1146 :: "bool \<Rightarrow> codepoint \<Rightarrow> lex_case" where
  "mozcpp_lex_1146 eof la = (Some mozcpp_sym_identifier,
      if la = CH_BACKSLASH then ADVANCE 286 else
      if la = CH_u then ADVANCE 1094 else
      if mozcpp_in_identifier la then ADVANCE 1152 else END_STATE)"

definition mozcpp_lex_1147 :: "bool \<Rightarrow> codepoint \<Rightarrow> lex_case" where
  "mozcpp_lex_1147 eof la = (Some mozcpp_sym_identifier,
      if la = CH_BACKSLASH then ADVANCE 286 else
      if la = CH_u then ADVANCE 1100 else
      if mozcpp_in_identifier la then ADVANCE 1152 else END_STATE)"

definition mozcpp_lex_1148 :: "bool \<Rightarrow> codepoint \<Rightarrow> lex_case" where
  "mozcpp_lex_1148 eof la = (Some mozcpp_sym_identifier,
      if la = CH_BACKSLASH then ADVANCE 286 else
      if la = CH_x then ADVANCE 1077 else
      if mozcpp_in_identifier la then ADVANCE 1152 else END_STATE)"

definition mozcpp_lex_1149 :: "bool \<Rightarrow> codepoint \<Rightarrow> lex_case" where
  "mozcpp_lex_1149 eof la = (Some mozcpp_sym_identifier,
      if la = CH_BACKSLASH then ADVANCE 286 else
      if la = CH_x then ADVANCE 1078 else
      if mozcpp_in_identifier la then ADVANCE 1152 else END_STATE)"

definition mozcpp_lex_1150 :: "bool \<Rightarrow> codepoint \<Rightarrow> lex_case" where
  "mozcpp_lex_1150 eof la = (Some mozcpp_sym_identifier,
      if la = CH_BACKSLASH then ADVANCE 286 else
      if la = CH_z then ADVANCE 1103 else
      if mozcpp_in_identifier la then ADVANCE 1152 else END_STATE)"

definition mozcpp_lex_1151 :: "bool \<Rightarrow> codepoint \<Rightarrow> lex_case" where
  "mozcpp_lex_1151 eof la = (Some mozcpp_sym_identifier,
      if la = CH_BACKSLASH then ADVANCE 286 else
      if (CH_0 \<le> la \<and> la \<le> CH_9) \<or> (CH_A \<le> la \<and> la \<le> CH_Z) \<or> la
        = CH_UNDERSCORE then ADVANCE 792 else
      if mozcpp_in_identifier la then ADVANCE 1152 else END_STATE)"

definition mozcpp_lex_1152 :: "bool \<Rightarrow> codepoint \<Rightarrow> lex_case" where
  "mozcpp_lex_1152 eof la = (Some mozcpp_sym_identifier,
      if la = CH_BACKSLASH then ADVANCE 286 else
      if mozcpp_in_identifier la then ADVANCE 1152 else END_STATE)"

definition mozcpp_lex_1153 :: "bool \<Rightarrow> codepoint \<Rightarrow> lex_case" where
  "mozcpp_lex_1153 eof la = (Some mozcpp_sym_comment, END_STATE)"

definition mozcpp_lex_1154 :: "bool \<Rightarrow> codepoint \<Rightarrow> lex_case" where
  "mozcpp_lex_1154 eof la = (Some mozcpp_sym_comment,
      if la = CH_LF then ADVANCE 1160 else
      if la = CH_SLASH then ADVANCE 1157 else
      if la = CH_BACKSLASH then ADVANCE 374 else
      if la \<noteq> 0 then ADVANCE 1158 else END_STATE)"

definition mozcpp_lex_1155 :: "bool \<Rightarrow> codepoint \<Rightarrow> lex_case" where
  "mozcpp_lex_1155 eof la = (Some mozcpp_sym_comment,
      if la = CH_CR then ADVANCE 1161 else
      if la = CH_BACKSLASH then ADVANCE 1155 else
      if la \<noteq> 0 then ADVANCE 1160 else END_STATE)"

definition mozcpp_lex_1156 :: "bool \<Rightarrow> codepoint \<Rightarrow> lex_case" where
  "mozcpp_lex_1156 eof la = (Some mozcpp_sym_comment,
      if la = CH_CR then ADVANCE 1159 else
      if la = CH_SLASH then ADVANCE 1157 else
      if la = CH_BACKSLASH then ADVANCE 1156 else
      if la \<noteq> 0 then ADVANCE 1158 else END_STATE)"

definition mozcpp_lex_1157 :: "bool \<Rightarrow> codepoint \<Rightarrow> lex_case" where
  "mozcpp_lex_1157 eof la = (Some mozcpp_sym_comment,
      if la = CH_STAR then ADVANCE 1160 else
      if la = CH_BACKSLASH then ADVANCE 369 else
      if la \<noteq> 0 \<and> la \<noteq> CH_LF then ADVANCE 1158 else END_STATE)"

definition mozcpp_lex_1158 :: "bool \<Rightarrow> codepoint \<Rightarrow> lex_case" where
  "mozcpp_lex_1158 eof la = (Some mozcpp_sym_comment,
      if la = CH_SLASH then ADVANCE 1157 else
      if la = CH_BACKSLASH then ADVANCE 374 else
      if la \<noteq> 0 \<and> la \<noteq> CH_LF then ADVANCE 1158 else END_STATE)"

definition mozcpp_lex_1159 :: "bool \<Rightarrow> codepoint \<Rightarrow> lex_case" where
  "mozcpp_lex_1159 eof la = (Some mozcpp_sym_comment,
      if la = CH_SLASH then ADVANCE 1157 else
      if la = CH_BACKSLASH then ADVANCE 374 else
      if la \<noteq> 0 then ADVANCE 1158 else END_STATE)"

definition mozcpp_lex_1160 :: "bool \<Rightarrow> codepoint \<Rightarrow> lex_case" where
  "mozcpp_lex_1160 eof la = (Some mozcpp_sym_comment,
      if la = CH_BACKSLASH then ADVANCE 165 else
      if la \<noteq> 0 \<and> la \<noteq> CH_LF then ADVANCE 1160 else END_STATE)"

definition mozcpp_lex_1161 :: "bool \<Rightarrow> codepoint \<Rightarrow> lex_case" where
  "mozcpp_lex_1161 eof la = (Some mozcpp_sym_comment,
      if la = CH_BACKSLASH then ADVANCE 165 else
      if la \<noteq> 0 then ADVANCE 1160 else END_STATE)"

definition mozcpp_lex_1162 :: "bool \<Rightarrow> codepoint \<Rightarrow> lex_case" where
  "mozcpp_lex_1162 eof la = (Some mozcpp_anon_sym_GT2, END_STATE)"

definition mozcpp_lex_1163 :: "bool \<Rightarrow> codepoint \<Rightarrow> lex_case" where
  "mozcpp_lex_1163 eof la = (Some mozcpp_aux_sym_pure_virtual_clause_token1, END_STATE)"

definition mozcpp_lex_1164 :: "bool \<Rightarrow> codepoint \<Rightarrow> lex_case" where
  "mozcpp_lex_1164 eof la = (Some mozcpp_anon_sym_R_DQUOTE, END_STATE)"

definition mozcpp_lex_1165 :: "bool \<Rightarrow> codepoint \<Rightarrow> lex_case" where
  "mozcpp_lex_1165 eof la = (Some mozcpp_anon_sym_LR_DQUOTE, END_STATE)"

definition mozcpp_lex_1166 :: "bool \<Rightarrow> codepoint \<Rightarrow> lex_case" where
  "mozcpp_lex_1166 eof la = (Some mozcpp_anon_sym_uR_DQUOTE, END_STATE)"

definition mozcpp_lex_1167 :: "bool \<Rightarrow> codepoint \<Rightarrow> lex_case" where
  "mozcpp_lex_1167 eof la = (Some mozcpp_anon_sym_UR_DQUOTE, END_STATE)"

definition mozcpp_lex_1168 :: "bool \<Rightarrow> codepoint \<Rightarrow> lex_case" where
  "mozcpp_lex_1168 eof la = (Some mozcpp_anon_sym_u8R_DQUOTE, END_STATE)"

definition mozcpp_lex_1169 :: "bool \<Rightarrow> codepoint \<Rightarrow> lex_case" where
  "mozcpp_lex_1169 eof la = (Some mozcpp_anon_sym_DASH_GT_STAR, END_STATE)"

definition mozcpp_lex_1170 :: "bool \<Rightarrow> codepoint \<Rightarrow> lex_case" where
  "mozcpp_lex_1170 eof la = (Some mozcpp_anon_sym_LPAREN_RPAREN, END_STATE)"

definition mozcpp_lex_1171 :: "bool \<Rightarrow> codepoint \<Rightarrow> lex_case" where
  "mozcpp_lex_1171 eof la = (Some mozcpp_anon_sym_LBRACK_RBRACK, END_STATE)"

definition mozcpp_lex_1172 :: "bool \<Rightarrow> codepoint \<Rightarrow> lex_case" where
  "mozcpp_lex_1172 eof la = (Some mozcpp_anon_sym_DQUOTE_DQUOTE, END_STATE)"

definition mozcpp_lex_1173 :: "bool \<Rightarrow> codepoint \<Rightarrow> lex_case" where
  "mozcpp_lex_1173 eof la = (Some mozcpp_sym_literal_suffix,
      if la = CH_DQUOTE then ADVANCE 539 else
      if la = CH_R then ADVANCE 1177 else
      if la = CH_BACKSLASH then ADVANCE 286 else
      if (CH_0 \<le> la \<and> la \<le> CH_9) \<or> (CH_A \<le> la \<and> la \<le> CH_Z) \<or> la
        = CH_UNDERSCORE \<or> (CH_a \<le> la \<and> la \<le> CH_z) then ADVANCE 1182 else
      if mozcpp_in_identifier la then ADVANCE 1152 else END_STATE)"

definition mozcpp_lex_1174 :: "bool \<Rightarrow> codepoint \<Rightarrow> lex_case" where
  "mozcpp_lex_1174 eof la = (Some mozcpp_sym_literal_suffix,
      if la = CH_DQUOTE then ADVANCE 1164 else
      if la = CH_BACKSLASH then ADVANCE 286 else
      if (CH_0 \<le> la \<and> la \<le> CH_9) \<or> (CH_A \<le> la \<and> la \<le> CH_Z) \<or> la
        = CH_UNDERSCORE \<or> (CH_a \<le> la \<and> la \<le> CH_z) then ADVANCE 1182 else
      if mozcpp_in_identifier la then ADVANCE 1152 else END_STATE)"

definition mozcpp_lex_1175 :: "bool \<Rightarrow> codepoint \<Rightarrow> lex_case" where
  "mozcpp_lex_1175 eof la = (Some mozcpp_sym_literal_suffix,
      if la = CH_DQUOTE then ADVANCE 541 else
      if la = CH_R then ADVANCE 1178 else
      if la = CH_BACKSLASH then ADVANCE 286 else
      if (CH_0 \<le> la \<and> la \<le> CH_9) \<or> (CH_A \<le> la \<and> la \<le> CH_Z) \<or> la
        = CH_UNDERSCORE \<or> (CH_a \<le> la \<and> la \<le> CH_z) then ADVANCE 1182 else
      if mozcpp_in_identifier la then ADVANCE 1152 else END_STATE)"

definition mozcpp_lex_1176 :: "bool \<Rightarrow> codepoint \<Rightarrow> lex_case" where
  "mozcpp_lex_1176 eof la = (Some mozcpp_sym_literal_suffix,
      if la = CH_DQUOTE then ADVANCE 540 else
      if la = CH_8 then ADVANCE 1179 else
      if la = CH_R then ADVANCE 1180 else
      if la = CH_BACKSLASH then ADVANCE 286 else
      if (CH_0 \<le> la \<and> la \<le> CH_9) \<or> (CH_A \<le> la \<and> la \<le> CH_Z) \<or> la
        = CH_UNDERSCORE \<or> (CH_a \<le> la \<and> la \<le> CH_z) then ADVANCE 1182 else
      if mozcpp_in_identifier la then ADVANCE 1152 else END_STATE)"

definition mozcpp_lex_1177 :: "bool \<Rightarrow> codepoint \<Rightarrow> lex_case" where
  "mozcpp_lex_1177 eof la = (Some mozcpp_sym_literal_suffix,
      if la = CH_DQUOTE then ADVANCE 1165 else
      if la = CH_BACKSLASH then ADVANCE 286 else
      if (CH_0 \<le> la \<and> la \<le> CH_9) \<or> (CH_A \<le> la \<and> la \<le> CH_Z) \<or> la
        = CH_UNDERSCORE \<or> (CH_a \<le> la \<and> la \<le> CH_z) then ADVANCE 1182 else
      if mozcpp_in_identifier la then ADVANCE 1152 else END_STATE)"

definition mozcpp_lex_1178 :: "bool \<Rightarrow> codepoint \<Rightarrow> lex_case" where
  "mozcpp_lex_1178 eof la = (Some mozcpp_sym_literal_suffix,
      if la = CH_DQUOTE then ADVANCE 1167 else
      if la = CH_BACKSLASH then ADVANCE 286 else
      if (CH_0 \<le> la \<and> la \<le> CH_9) \<or> (CH_A \<le> la \<and> la \<le> CH_Z) \<or> la
        = CH_UNDERSCORE \<or> (CH_a \<le> la \<and> la \<le> CH_z) then ADVANCE 1182 else
      if mozcpp_in_identifier la then ADVANCE 1152 else END_STATE)"

definition mozcpp_lex_1179 :: "bool \<Rightarrow> codepoint \<Rightarrow> lex_case" where
  "mozcpp_lex_1179 eof la = (Some mozcpp_sym_literal_suffix,
      if la = CH_DQUOTE then ADVANCE 542 else
      if la = CH_R then ADVANCE 1181 else
      if la = CH_BACKSLASH then ADVANCE 286 else
      if (CH_0 \<le> la \<and> la \<le> CH_9) \<or> (CH_A \<le> la \<and> la \<le> CH_Z) \<or> la
        = CH_UNDERSCORE \<or> (CH_a \<le> la \<and> la \<le> CH_z) then ADVANCE 1182 else
      if mozcpp_in_identifier la then ADVANCE 1152 else END_STATE)"

definition mozcpp_lex_1180 :: "bool \<Rightarrow> codepoint \<Rightarrow> lex_case" where
  "mozcpp_lex_1180 eof la = (Some mozcpp_sym_literal_suffix,
      if la = CH_DQUOTE then ADVANCE 1166 else
      if la = CH_BACKSLASH then ADVANCE 286 else
      if (CH_0 \<le> la \<and> la \<le> CH_9) \<or> (CH_A \<le> la \<and> la \<le> CH_Z) \<or> la
        = CH_UNDERSCORE \<or> (CH_a \<le> la \<and> la \<le> CH_z) then ADVANCE 1182 else
      if mozcpp_in_identifier la then ADVANCE 1152 else END_STATE)"

definition mozcpp_lex_1181 :: "bool \<Rightarrow> codepoint \<Rightarrow> lex_case" where
  "mozcpp_lex_1181 eof la = (Some mozcpp_sym_literal_suffix,
      if la = CH_DQUOTE then ADVANCE 1168 else
      if la = CH_BACKSLASH then ADVANCE 286 else
      if (CH_0 \<le> la \<and> la \<le> CH_9) \<or> (CH_A \<le> la \<and> la \<le> CH_Z) \<or> la
        = CH_UNDERSCORE \<or> (CH_a \<le> la \<and> la \<le> CH_z) then ADVANCE 1182 else
      if mozcpp_in_identifier la then ADVANCE 1152 else END_STATE)"

definition mozcpp_lex_1182 :: "bool \<Rightarrow> codepoint \<Rightarrow> lex_case" where
  "mozcpp_lex_1182 eof la = (Some mozcpp_sym_literal_suffix,
      if la = CH_BACKSLASH then ADVANCE 286 else
      if (CH_0 \<le> la \<and> la \<le> CH_9) \<or> (CH_A \<le> la \<and> la \<le> CH_Z) \<or> la
        = CH_UNDERSCORE \<or> (CH_a \<le> la \<and> la \<le> CH_z) then ADVANCE 1182 else
      if mozcpp_in_identifier la then ADVANCE 1152 else END_STATE)"

definition mozcpp_lex_1183 :: "bool \<Rightarrow> codepoint \<Rightarrow> lex_case" where
  "mozcpp_lex_1183 eof la = (Some mozcpp_sym_alone_macro,
      if la = CH_LF then ADVANCE 1183 else
      if (CH_TAB \<le> la \<and> la \<le> CH_CR) \<or> la = CH_SPACE then ADVANCE 5 else
        END_STATE)"

definition mozcpp_lex_1184 :: "bool \<Rightarrow> codepoint \<Rightarrow> lex_case" where
  "mozcpp_lex_1184 eof la = (Some mozcpp_aux_sym_alone_macro_call_token1,
      if (CH_0 \<le> la \<and> la \<le> CH_9) \<or> (CH_A \<le> la \<and> la \<le> CH_Z) \<or> la
        = CH_UNDERSCORE then ADVANCE 1184 else END_STATE)"

definition mozcpp_lex_cases_0 :: "(bool \<Rightarrow> codepoint \<Rightarrow> lex_case) list" where
  "mozcpp_lex_cases_0 = [mozcpp_lex_0, mozcpp_lex_1, mozcpp_lex_2, mozcpp_lex_3, mozcpp_lex_4,
    mozcpp_lex_5, mozcpp_lex_6, mozcpp_lex_7, mozcpp_lex_8, mozcpp_lex_9, mozcpp_lex_10,
    mozcpp_lex_11, mozcpp_lex_12, mozcpp_lex_13, mozcpp_lex_14, mozcpp_lex_15, mozcpp_lex_16,
    mozcpp_lex_17, mozcpp_lex_18]"

definition mozcpp_lex_cases_1 :: "(bool \<Rightarrow> codepoint \<Rightarrow> lex_case) list" where
  "mozcpp_lex_cases_1 = [mozcpp_lex_19, mozcpp_lex_20, mozcpp_lex_21, mozcpp_lex_22,
    mozcpp_lex_23, mozcpp_lex_24, mozcpp_lex_25, mozcpp_lex_26, mozcpp_lex_27, mozcpp_lex_28,
    mozcpp_lex_29, mozcpp_lex_30, mozcpp_lex_31, mozcpp_lex_32, mozcpp_lex_33, mozcpp_lex_34,
    mozcpp_lex_35, mozcpp_lex_36, mozcpp_lex_37, mozcpp_lex_38, mozcpp_lex_39, mozcpp_lex_40,
    mozcpp_lex_41, mozcpp_lex_42, mozcpp_lex_43, mozcpp_lex_44, mozcpp_lex_45, mozcpp_lex_46,
    mozcpp_lex_47, mozcpp_lex_48, mozcpp_lex_49, mozcpp_lex_50, mozcpp_lex_51]"

definition mozcpp_lex_cases_2 :: "(bool \<Rightarrow> codepoint \<Rightarrow> lex_case) list" where
  "mozcpp_lex_cases_2 = [mozcpp_lex_52, mozcpp_lex_53, mozcpp_lex_54, mozcpp_lex_55,
    mozcpp_lex_56, mozcpp_lex_57, mozcpp_lex_58, mozcpp_lex_59, mozcpp_lex_60, mozcpp_lex_61,
    mozcpp_lex_62, mozcpp_lex_63, mozcpp_lex_64, mozcpp_lex_65, mozcpp_lex_66, mozcpp_lex_67,
    mozcpp_lex_68, mozcpp_lex_69, mozcpp_lex_70, mozcpp_lex_71, mozcpp_lex_72, mozcpp_lex_73,
    mozcpp_lex_74, mozcpp_lex_75, mozcpp_lex_76, mozcpp_lex_77, mozcpp_lex_78, mozcpp_lex_79,
    mozcpp_lex_80, mozcpp_lex_81, mozcpp_lex_82, mozcpp_lex_83, mozcpp_lex_84]"

definition mozcpp_lex_cases_3 :: "(bool \<Rightarrow> codepoint \<Rightarrow> lex_case) list" where
  "mozcpp_lex_cases_3 = [mozcpp_lex_85, mozcpp_lex_86, mozcpp_lex_87, mozcpp_lex_88,
    mozcpp_lex_89, mozcpp_lex_90, mozcpp_lex_91, mozcpp_lex_92, mozcpp_lex_93, mozcpp_lex_94,
    mozcpp_lex_95, mozcpp_lex_96, mozcpp_lex_97, mozcpp_lex_98, mozcpp_lex_99, mozcpp_lex_100,
    mozcpp_lex_101, mozcpp_lex_102, mozcpp_lex_103, mozcpp_lex_104, mozcpp_lex_105,
    mozcpp_lex_106, mozcpp_lex_107, mozcpp_lex_108, mozcpp_lex_109, mozcpp_lex_110,
    mozcpp_lex_111]"

definition mozcpp_lex_cases_4 :: "(bool \<Rightarrow> codepoint \<Rightarrow> lex_case) list" where
  "mozcpp_lex_cases_4 = [mozcpp_lex_112, mozcpp_lex_113, mozcpp_lex_114, mozcpp_lex_115,
    mozcpp_lex_116, mozcpp_lex_117, mozcpp_lex_118, mozcpp_lex_119, mozcpp_lex_120,
    mozcpp_lex_121, mozcpp_lex_122, mozcpp_lex_123, mozcpp_lex_124, mozcpp_lex_125,
    mozcpp_lex_126, mozcpp_lex_127, mozcpp_lex_128, mozcpp_lex_129, mozcpp_lex_130,
    mozcpp_lex_131, mozcpp_lex_132, mozcpp_lex_133, mozcpp_lex_134, mozcpp_lex_135,
    mozcpp_lex_136, mozcpp_lex_137, mozcpp_lex_138]"

definition mozcpp_lex_cases_5 :: "(bool \<Rightarrow> codepoint \<Rightarrow> lex_case) list" where
  "mozcpp_lex_cases_5 = [mozcpp_lex_139, mozcpp_lex_140, mozcpp_lex_141, mozcpp_lex_142,
    mozcpp_lex_143, mozcpp_lex_144, mozcpp_lex_145, mozcpp_lex_146, mozcpp_lex_147,
    mozcpp_lex_148, mozcpp_lex_149, mozcpp_lex_150, mozcpp_lex_151, mozcpp_lex_152,
    mozcpp_lex_153, mozcpp_lex_154, mozcpp_lex_155, mozcpp_lex_156, mozcpp_lex_157,
    mozcpp_lex_158, mozcpp_lex_159, mozcpp_lex_160, mozcpp_lex_161, mozcpp_lex_162,
    mozcpp_lex_163, mozcpp_lex_164, mozcpp_lex_165]"

definition mozcpp_lex_cases_6 :: "(bool \<Rightarrow> codepoint \<Rightarrow> lex_case) list" where
  "mozcpp_lex_cases_6 = [mozcpp_lex_166, mozcpp_lex_167]"

definition mozcpp_lex_cases_7 :: "(bool \<Rightarrow> codepoint \<Rightarrow> lex_case) list" where
  "mozcpp_lex_cases_7 = [mozcpp_lex_168, mozcpp_lex_169]"

definition mozcpp_lex_cases_8 :: "(bool \<Rightarrow> codepoint \<Rightarrow> lex_case) list" where
  "mozcpp_lex_cases_8 = [mozcpp_lex_170, mozcpp_lex_171]"

definition mozcpp_lex_cases_9 :: "(bool \<Rightarrow> codepoint \<Rightarrow> lex_case) list" where
  "mozcpp_lex_cases_9 = [mozcpp_lex_172, mozcpp_lex_173, mozcpp_lex_174]"

definition mozcpp_lex_cases_10 :: "(bool \<Rightarrow> codepoint \<Rightarrow> lex_case) list" where
  "mozcpp_lex_cases_10 = [mozcpp_lex_175, mozcpp_lex_176]"

definition mozcpp_lex_cases_11 :: "(bool \<Rightarrow> codepoint \<Rightarrow> lex_case) list" where
  "mozcpp_lex_cases_11 = [mozcpp_lex_177, mozcpp_lex_178]"

definition mozcpp_lex_cases_12 :: "(bool \<Rightarrow> codepoint \<Rightarrow> lex_case) list" where
  "mozcpp_lex_cases_12 = [mozcpp_lex_179, mozcpp_lex_180, mozcpp_lex_181]"

definition mozcpp_lex_cases_13 :: "(bool \<Rightarrow> codepoint \<Rightarrow> lex_case) list" where
  "mozcpp_lex_cases_13 = [mozcpp_lex_182, mozcpp_lex_183, mozcpp_lex_184, mozcpp_lex_185]"

definition mozcpp_lex_cases_14 :: "(bool \<Rightarrow> codepoint \<Rightarrow> lex_case) list" where
  "mozcpp_lex_cases_14 = [mozcpp_lex_186, mozcpp_lex_187, mozcpp_lex_188, mozcpp_lex_189]"

definition mozcpp_lex_cases_15 :: "(bool \<Rightarrow> codepoint \<Rightarrow> lex_case) list" where
  "mozcpp_lex_cases_15 = [mozcpp_lex_190, mozcpp_lex_191, mozcpp_lex_192, mozcpp_lex_193]"

definition mozcpp_lex_cases_16 :: "(bool \<Rightarrow> codepoint \<Rightarrow> lex_case) list" where
  "mozcpp_lex_cases_16 = [mozcpp_lex_194, mozcpp_lex_195, mozcpp_lex_196, mozcpp_lex_197]"

definition mozcpp_lex_cases_17 :: "(bool \<Rightarrow> codepoint \<Rightarrow> lex_case) list" where
  "mozcpp_lex_cases_17 = [mozcpp_lex_198, mozcpp_lex_199, mozcpp_lex_200]"

definition mozcpp_lex_cases_18 :: "(bool \<Rightarrow> codepoint \<Rightarrow> lex_case) list" where
  "mozcpp_lex_cases_18 = [mozcpp_lex_201, mozcpp_lex_202, mozcpp_lex_203]"

definition mozcpp_lex_cases_19 :: "(bool \<Rightarrow> codepoint \<Rightarrow> lex_case) list" where
  "mozcpp_lex_cases_19 = [mozcpp_lex_204, mozcpp_lex_205, mozcpp_lex_206, mozcpp_lex_207]"

definition mozcpp_lex_cases_20 :: "(bool \<Rightarrow> codepoint \<Rightarrow> lex_case) list" where
  "mozcpp_lex_cases_20 = [mozcpp_lex_208, mozcpp_lex_209, mozcpp_lex_210]"

definition mozcpp_lex_cases_21 :: "(bool \<Rightarrow> codepoint \<Rightarrow> lex_case) list" where
  "mozcpp_lex_cases_21 = [mozcpp_lex_211, mozcpp_lex_212, mozcpp_lex_213, mozcpp_lex_214]"

definition mozcpp_lex_cases_22 :: "(bool \<Rightarrow> codepoint \<Rightarrow> lex_case) list" where
  "mozcpp_lex_cases_22 = [mozcpp_lex_215, mozcpp_lex_216, mozcpp_lex_217, mozcpp_lex_218,
    mozcpp_lex_219]"

definition mozcpp_lex_cases_23 :: "(bool \<Rightarrow> codepoint \<Rightarrow> lex_case) list" where
  "mozcpp_lex_cases_23 = [mozcpp_lex_220, mozcpp_lex_221, mozcpp_lex_222, mozcpp_lex_223]"

definition mozcpp_lex_cases_24 :: "(bool \<Rightarrow> codepoint \<Rightarrow> lex_case) list" where
  "mozcpp_lex_cases_24 = [mozcpp_lex_224, mozcpp_lex_225, mozcpp_lex_226, mozcpp_lex_227,
    mozcpp_lex_228]"

definition mozcpp_lex_cases_25 :: "(bool \<Rightarrow> codepoint \<Rightarrow> lex_case) list" where
  "mozcpp_lex_cases_25 = [mozcpp_lex_229, mozcpp_lex_230, mozcpp_lex_231]"

definition mozcpp_lex_cases_26 :: "(bool \<Rightarrow> codepoint \<Rightarrow> lex_case) list" where
  "mozcpp_lex_cases_26 = [mozcpp_lex_232, mozcpp_lex_233, mozcpp_lex_234, mozcpp_lex_235]"

definition mozcpp_lex_cases_27 :: "(bool \<Rightarrow> codepoint \<Rightarrow> lex_case) list" where
  "mozcpp_lex_cases_27 = [mozcpp_lex_236, mozcpp_lex_237, mozcpp_lex_238, mozcpp_lex_239,
    mozcpp_lex_240, mozcpp_lex_241]"

definition mozcpp_lex_cases_28 :: "(bool \<Rightarrow> codepoint \<Rightarrow> lex_case) list" where
  "mozcpp_lex_cases_28 = [mozcpp_lex_242, mozcpp_lex_243, mozcpp_lex_244, mozcpp_lex_245]"

definition mozcpp_lex_cases_29 :: "(bool \<Rightarrow> codepoint \<Rightarrow> lex_case) list" where
  "mozcpp_lex_cases_29 = [mozcpp_lex_246, mozcpp_lex_247, mozcpp_lex_248, mozcpp_lex_249,
    mozcpp_lex_250, mozcpp_lex_251]"

definition mozcpp_lex_cases_30 :: "(bool \<Rightarrow> codepoint \<Rightarrow> lex_case) list" where
  "mozcpp_lex_cases_30 = [mozcpp_lex_252, mozcpp_lex_253, mozcpp_lex_254, mozcpp_lex_255,
    mozcpp_lex_256, mozcpp_lex_257, mozcpp_lex_258, mozcpp_lex_259, mozcpp_lex_260,
    mozcpp_lex_261, mozcpp_lex_262, mozcpp_lex_263, mozcpp_lex_264, mozcpp_lex_265,
    mozcpp_lex_266, mozcpp_lex_267, mozcpp_lex_268, mozcpp_lex_269, mozcpp_lex_270,
    mozcpp_lex_271, mozcpp_lex_272, mozcpp_lex_273, mozcpp_lex_274, mozcpp_lex_275,
    mozcpp_lex_276, mozcpp_lex_277, mozcpp_lex_278, mozcpp_lex_279, mozcpp_lex_280]"

definition mozcpp_lex_cases_31 :: "(bool \<Rightarrow> codepoint \<Rightarrow> lex_case) list" where
  "mozcpp_lex_cases_31 = [mozcpp_lex_281, mozcpp_lex_282, mozcpp_lex_283, mozcpp_lex_284,
    mozcpp_lex_285, mozcpp_lex_286, mozcpp_lex_287, mozcpp_lex_288, mozcpp_lex_289,
    mozcpp_lex_290, mozcpp_lex_291, mozcpp_lex_292, mozcpp_lex_293, mozcpp_lex_294,
    mozcpp_lex_295, mozcpp_lex_296, mozcpp_lex_297, mozcpp_lex_298, mozcpp_lex_299,
    mozcpp_lex_300, mozcpp_lex_301, mozcpp_lex_302, mozcpp_lex_303, mozcpp_lex_304,
    mozcpp_lex_305, mozcpp_lex_306, mozcpp_lex_307, mozcpp_lex_308, mozcpp_lex_309,
    mozcpp_lex_310]"

definition mozcpp_lex_cases_32 :: "(bool \<Rightarrow> codepoint \<Rightarrow> lex_case) list" where
  "mozcpp_lex_cases_32 = [mozcpp_lex_311, mozcpp_lex_312, mozcpp_lex_313, mozcpp_lex_314,
    mozcpp_lex_315, mozcpp_lex_316, mozcpp_lex_317, mozcpp_lex_318, mozcpp_lex_319,
    mozcpp_lex_320, mozcpp_lex_321, mozcpp_lex_322, mozcpp_lex_323, mozcpp_lex_324,
    mozcpp_lex_325, mozcpp_lex_326, mozcpp_lex_327, mozcpp_lex_328, mozcpp_lex_329,
    mozcpp_lex_330, mozcpp_lex_331, mozcpp_lex_332, mozcpp_lex_333, mozcpp_lex_334,
    mozcpp_lex_335, mozcpp_lex_336, mozcpp_lex_337, mozcpp_lex_338, mozcpp_lex_339,
    mozcpp_lex_340, mozcpp_lex_341, mozcpp_lex_342]"

definition mozcpp_lex_cases_33 :: "(bool \<Rightarrow> codepoint \<Rightarrow> lex_case) list" where
  "mozcpp_lex_cases_33 = [mozcpp_lex_343, mozcpp_lex_344, mozcpp_lex_345, mozcpp_lex_346,
    mozcpp_lex_347]"

definition mozcpp_lex_cases_34 :: "(bool \<Rightarrow> codepoint \<Rightarrow> lex_case) list" where
  "mozcpp_lex_cases_34 = [mozcpp_lex_348, mozcpp_lex_349, mozcpp_lex_350, mozcpp_lex_351,
    mozcpp_lex_352, mozcpp_lex_353, mozcpp_lex_354, mozcpp_lex_355, mozcpp_lex_356,
    mozcpp_lex_357, mozcpp_lex_358, mozcpp_lex_359, mozcpp_lex_360, mozcpp_lex_361,
    mozcpp_lex_362, mozcpp_lex_363, mozcpp_lex_364, mozcpp_lex_365, mozcpp_lex_366,
    mozcpp_lex_367, mozcpp_lex_368, mozcpp_lex_369, mozcpp_lex_370, mozcpp_lex_371,
    mozcpp_lex_372]"

definition mozcpp_lex_cases_35 :: "(bool \<Rightarrow> codepoint \<Rightarrow> lex_case) list" where
  "mozcpp_lex_cases_35 = [mozcpp_lex_373, mozcpp_lex_374, mozcpp_lex_375, mozcpp_lex_376,
    mozcpp_lex_377, mozcpp_lex_378, mozcpp_lex_379, mozcpp_lex_380, mozcpp_lex_381,
    mozcpp_lex_382, mozcpp_lex_383, mozcpp_lex_384, mozcpp_lex_385, mozcpp_lex_386,
    mozcpp_lex_387, mozcpp_lex_388, mozcpp_lex_389, mozcpp_lex_390, mozcpp_lex_391]"

definition mozcpp_lex_cases_36 :: "(bool \<Rightarrow> codepoint \<Rightarrow> lex_case) list" where
  "mozcpp_lex_cases_36 = [mozcpp_lex_392, mozcpp_lex_393, mozcpp_lex_394, mozcpp_lex_395,
    mozcpp_lex_396, mozcpp_lex_397, mozcpp_lex_398, mozcpp_lex_399, mozcpp_lex_400,
    mozcpp_lex_401, mozcpp_lex_402, mozcpp_lex_403, mozcpp_lex_404, mozcpp_lex_405,
    mozcpp_lex_406, mozcpp_lex_407, mozcpp_lex_408, mozcpp_lex_409, mozcpp_lex_410]"

definition mozcpp_lex_cases_37 :: "(bool \<Rightarrow> codepoint \<Rightarrow> lex_case) list" where
  "mozcpp_lex_cases_37 = [mozcpp_lex_411, mozcpp_lex_412, mozcpp_lex_413, mozcpp_lex_414,
    mozcpp_lex_415, mozcpp_lex_416, mozcpp_lex_417, mozcpp_lex_418, mozcpp_lex_419,
    mozcpp_lex_420, mozcpp_lex_421, mozcpp_lex_422, mozcpp_lex_423, mozcpp_lex_424,
    mozcpp_lex_425, mozcpp_lex_426, mozcpp_lex_427, mozcpp_lex_428, mozcpp_lex_429,
    mozcpp_lex_430, mozcpp_lex_431, mozcpp_lex_432, mozcpp_lex_433, mozcpp_lex_434,
    mozcpp_lex_435, mozcpp_lex_436, mozcpp_lex_437, mozcpp_lex_438, mozcpp_lex_439,
    mozcpp_lex_440]"

definition mozcpp_lex_cases_38 :: "(bool \<Rightarrow> codepoint \<Rightarrow> lex_case) list" where
  "mozcpp_lex_cases_38 = [mozcpp_lex_441, mozcpp_lex_442, mozcpp_lex_443, mozcpp_lex_444,
    mozcpp_lex_445, mozcpp_lex_446, mozcpp_lex_447, mozcpp_lex_448, mozcpp_lex_449,
    mozcpp_lex_450, mozcpp_lex_451, mozcpp_lex_452, mozcpp_lex_453, mozcpp_lex_454,
    mozcpp_lex_455, mozcpp_lex_456, mozcpp_lex_457, mozcpp_lex_458, mozcpp_lex_459,
    mozcpp_lex_460, mozcpp_lex_461, mozcpp_lex_462, mozcpp_lex_463, mozcpp_lex_464,
    mozcpp_lex_465, mozcpp_lex_466, mozcpp_lex_467, mozcpp_lex_468, mozcpp_lex_469,
    mozcpp_lex_470, mozcpp_lex_471, mozcpp_lex_472, mozcpp_lex_473, mozcpp_lex_474,
    mozcpp_lex_475, mozcpp_lex_476, mozcpp_lex_477]"

definition mozcpp_lex_cases_39 :: "(bool \<Rightarrow> codepoint \<Rightarrow> lex_case) list" where
  "mozcpp_lex_cases_39 = [mozcpp_lex_478, mozcpp_lex_479, mozcpp_lex_480, mozcpp_lex_481,
    mozcpp_lex_482, mozcpp_lex_483, mozcpp_lex_484, mozcpp_lex_485, mozcpp_lex_486,
    mozcpp_lex_487, mozcpp_lex_488, mozcpp_lex_489, mozcpp_lex_490, mozcpp_lex_491,
    mozcpp_lex_492, mozcpp_lex_493, mozcpp_lex_494, mozcpp_lex_495, mozcpp_lex_496]"

definition mozcpp_lex_cases_40 :: "(bool \<Rightarrow> codepoint \<Rightarrow> lex_case) list" where
  "mozcpp_lex_cases_40 = [mozcpp_lex_497, mozcpp_lex_498, mozcpp_lex_499, mozcpp_lex_500,
    mozcpp_lex_501, mozcpp_lex_502, mozcpp_lex_503, mozcpp_lex_504, mozcpp_lex_505,
    mozcpp_lex_506, mozcpp_lex_507, mozcpp_lex_508, mozcpp_lex_509, mozcpp_lex_510,
    mozcpp_lex_511, mozcpp_lex_512, mozcpp_lex_513, mozcpp_lex_514, mozcpp_lex_515,
    mozcpp_lex_516, mozcpp_lex_517, mozcpp_lex_518, mozcpp_lex_519]"

definition mozcpp_lex_cases_41 :: "(bool \<Rightarrow> codepoint \<Rightarrow> lex_case) list" where
  "mozcpp_lex_cases_41 = [mozcpp_lex_520, mozcpp_lex_521, mozcpp_lex_522, mozcpp_lex_523,
    mozcpp_lex_524, mozcpp_lex_525, mozcpp_lex_526, mozcpp_lex_527, mozcpp_lex_528,
    mozcpp_lex_529, mozcpp_lex_530, mozcpp_lex_531, mozcpp_lex_532, mozcpp_lex_533,
    mozcpp_lex_534, mozcpp_lex_535, mozcpp_lex_536, mozcpp_lex_537, mozcpp_lex_538,
    mozcpp_lex_539, mozcpp_lex_540, mozcpp_lex_541, mozcpp_lex_542, mozcpp_lex_543,
    mozcpp_lex_544]"

definition mozcpp_lex_cases_42 :: "(bool \<Rightarrow> codepoint \<Rightarrow> lex_case) list" where
  "mozcpp_lex_cases_42 = [mozcpp_lex_545, mozcpp_lex_546, mozcpp_lex_547, mozcpp_lex_548,
    mozcpp_lex_549, mozcpp_lex_550, mozcpp_lex_551, mozcpp_lex_552, mozcpp_lex_553,
    mozcpp_lex_554, mozcpp_lex_555, mozcpp_lex_556, mozcpp_lex_557, mozcpp_lex_558,
    mozcpp_lex_559, mozcpp_lex_560, mozcpp_lex_561, mozcpp_lex_562, mozcpp_lex_563,
    mozcpp_lex_564]"

definition mozcpp_lex_cases_43 :: "(bool \<Rightarrow> codepoint \<Rightarrow> lex_case) list" where
  "mozcpp_lex_cases_43 = [mozcpp_lex_565, mozcpp_lex_566, mozcpp_lex_567, mozcpp_lex_568,
    mozcpp_lex_569, mozcpp_lex_570, mozcpp_lex_571, mozcpp_lex_572, mozcpp_lex_573,
    mozcpp_lex_574, mozcpp_lex_575, mozcpp_lex_576]"

definition mozcpp_lex_cases_44 :: "(bool \<Rightarrow> codepoint \<Rightarrow> lex_case) list" where
  "mozcpp_lex_cases_44 = [mozcpp_lex_577, mozcpp_lex_578, mozcpp_lex_579, mozcpp_lex_580,
    mozcpp_lex_581, mozcpp_lex_582, mozcpp_lex_583, mozcpp_lex_584, mozcpp_lex_585,
    mozcpp_lex_586, mozcpp_lex_587]"

definition mozcpp_lex_cases_45 :: "(bool \<Rightarrow> codepoint \<Rightarrow> lex_case) list" where
  "mozcpp_lex_cases_45 = [mozcpp_lex_588, mozcpp_lex_589, mozcpp_lex_590, mozcpp_lex_591,
    mozcpp_lex_592, mozcpp_lex_593, mozcpp_lex_594, mozcpp_lex_595, mozcpp_lex_596,
    mozcpp_lex_597, mozcpp_lex_598]"

definition mozcpp_lex_cases_46 :: "(bool \<Rightarrow> codepoint \<Rightarrow> lex_case) list" where
  "mozcpp_lex_cases_46 = [mozcpp_lex_599, mozcpp_lex_600, mozcpp_lex_601, mozcpp_lex_602,
    mozcpp_lex_603, mozcpp_lex_604, mozcpp_lex_605, mozcpp_lex_606, mozcpp_lex_607,
    mozcpp_lex_608, mozcpp_lex_609, mozcpp_lex_610]"

definition mozcpp_lex_cases_47 :: "(bool \<Rightarrow> codepoint \<Rightarrow> lex_case) list" where
  "mozcpp_lex_cases_47 = [mozcpp_lex_611, mozcpp_lex_612, mozcpp_lex_613, mozcpp_lex_614,
    mozcpp_lex_615, mozcpp_lex_616, mozcpp_lex_617, mozcpp_lex_618, mozcpp_lex_619,
    mozcpp_lex_620, mozcpp_lex_621, mozcpp_lex_622]"

definition mozcpp_lex_cases_48 :: "(bool \<Rightarrow> codepoint \<Rightarrow> lex_case) list" where
  "mozcpp_lex_cases_48 = [mozcpp_lex_623, mozcpp_lex_624, mozcpp_lex_625, mozcpp_lex_626,
    mozcpp_lex_627, mozcpp_lex_628, mozcpp_lex_629, mozcpp_lex_630, mozcpp_lex_631,
    mozcpp_lex_632, mozcpp_lex_633, mozcpp_lex_634]"

definition mozcpp_lex_cases_49 :: "(bool \<Rightarrow> codepoint \<Rightarrow> lex_case) list" where
  "mozcpp_lex_cases_49 = [mozcpp_lex_635, mozcpp_lex_636, mozcpp_lex_637, mozcpp_lex_638,
    mozcpp_lex_639, mozcpp_lex_640, mozcpp_lex_641, mozcpp_lex_642, mozcpp_lex_643,
    mozcpp_lex_644, mozcpp_lex_645]"

definition mozcpp_lex_cases_50 :: "(bool \<Rightarrow> codepoint \<Rightarrow> lex_case) list" where
  "mozcpp_lex_cases_50 = [mozcpp_lex_646, mozcpp_lex_647, mozcpp_lex_648, mozcpp_lex_649,
    mozcpp_lex_650, mozcpp_lex_651, mozcpp_lex_652, mozcpp_lex_653, mozcpp_lex_654,
    mozcpp_lex_655, mozcpp_lex_656, mozcpp_lex_657]"

definition mozcpp_lex_cases_51 :: "(bool \<Rightarrow> codepoint \<Rightarrow> lex_case) list" where
  "mozcpp_lex_cases_51 = [mozcpp_lex_658, mozcpp_lex_659, mozcpp_lex_660, mozcpp_lex_661,
    mozcpp_lex_662, mozcpp_lex_663, mozcpp_lex_664, mozcpp_lex_665, mozcpp_lex_666,
    mozcpp_lex_667, mozcpp_lex_668, mozcpp_lex_669]"

definition mozcpp_lex_cases_52 :: "(bool \<Rightarrow> codepoint \<Rightarrow> lex_case) list" where
  "mozcpp_lex_cases_52 = [mozcpp_lex_670, mozcpp_lex_671, mozcpp_lex_672, mozcpp_lex_673,
    mozcpp_lex_674, mozcpp_lex_675, mozcpp_lex_676, mozcpp_lex_677, mozcpp_lex_678,
    mozcpp_lex_679, mozcpp_lex_680, mozcpp_lex_681]"

definition mozcpp_lex_cases_53 :: "(bool \<Rightarrow> codepoint \<Rightarrow> lex_case) list" where
  "mozcpp_lex_cases_53 = [mozcpp_lex_682, mozcpp_lex_683, mozcpp_lex_684, mozcpp_lex_685,
    mozcpp_lex_686, mozcpp_lex_687, mozcpp_lex_688, mozcpp_lex_689, mozcpp_lex_690,
    mozcpp_lex_691, mozcpp_lex_692, mozcpp_lex_693]"

definition mozcpp_lex_cases_54 :: "(bool \<Rightarrow> codepoint \<Rightarrow> lex_case) list" where
  "mozcpp_lex_cases_54 = [mozcpp_lex_694, mozcpp_lex_695, mozcpp_lex_696, mozcpp_lex_697,
    mozcpp_lex_698, mozcpp_lex_699, mozcpp_lex_700, mozcpp_lex_701, mozcpp_lex_702,
    mozcpp_lex_703, mozcpp_lex_704, mozcpp_lex_705]"

definition mozcpp_lex_cases_55 :: "(bool \<Rightarrow> codepoint \<Rightarrow> lex_case) list" where
  "mozcpp_lex_cases_55 = [mozcpp_lex_706, mozcpp_lex_707, mozcpp_lex_708, mozcpp_lex_709,
    mozcpp_lex_710, mozcpp_lex_711, mozcpp_lex_712, mozcpp_lex_713, mozcpp_lex_714,
    mozcpp_lex_715, mozcpp_lex_716, mozcpp_lex_717]"

definition mozcpp_lex_cases_56 :: "(bool \<Rightarrow> codepoint \<Rightarrow> lex_case) list" where
  "mozcpp_lex_cases_56 = [mozcpp_lex_718, mozcpp_lex_719, mozcpp_lex_720, mozcpp_lex_721,
    mozcpp_lex_722, mozcpp_lex_723, mozcpp_lex_724, mozcpp_lex_725, mozcpp_lex_726,
    mozcpp_lex_727, mozcpp_lex_728, mozcpp_lex_729]"

definition mozcpp_lex_cases_57 :: "(bool \<Rightarrow> codepoint \<Rightarrow> lex_case) list" where
  "mozcpp_lex_cases_57 = [mozcpp_lex_730, mozcpp_lex_731, mozcpp_lex_732, mozcpp_lex_733,
    mozcpp_lex_734, mozcpp_lex_735, mozcpp_lex_736, mozcpp_lex_737, mozcpp_lex_738,
    mozcpp_lex_739, mozcpp_lex_740, mozcpp_lex_741]"

definition mozcpp_lex_cases_58 :: "(bool \<Rightarrow> codepoint \<Rightarrow> lex_case) list" where
  "mozcpp_lex_cases_58 = [mozcpp_lex_742, mozcpp_lex_743, mozcpp_lex_744, mozcpp_lex_745,
    mozcpp_lex_746, mozcpp_lex_747, mozcpp_lex_748, mozcpp_lex_749, mozcpp_lex_750,
    mozcpp_lex_751, mozcpp_lex_752, mozcpp_lex_753]"

definition mozcpp_lex_cases_59 :: "(bool \<Rightarrow> codepoint \<Rightarrow> lex_case) list" where
  "mozcpp_lex_cases_59 = [mozcpp_lex_754, mozcpp_lex_755, mozcpp_lex_756, mozcpp_lex_757,
    mozcpp_lex_758, mozcpp_lex_759, mozcpp_lex_760, mozcpp_lex_761, mozcpp_lex_762,
    mozcpp_lex_763, mozcpp_lex_764, mozcpp_lex_765]"

definition mozcpp_lex_cases_60 :: "(bool \<Rightarrow> codepoint \<Rightarrow> lex_case) list" where
  "mozcpp_lex_cases_60 = [mozcpp_lex_766, mozcpp_lex_767, mozcpp_lex_768, mozcpp_lex_769,
    mozcpp_lex_770, mozcpp_lex_771, mozcpp_lex_772, mozcpp_lex_773, mozcpp_lex_774,
    mozcpp_lex_775, mozcpp_lex_776, mozcpp_lex_777]"

definition mozcpp_lex_cases_61 :: "(bool \<Rightarrow> codepoint \<Rightarrow> lex_case) list" where
  "mozcpp_lex_cases_61 = [mozcpp_lex_778, mozcpp_lex_779, mozcpp_lex_780, mozcpp_lex_781,
    mozcpp_lex_782, mozcpp_lex_783, mozcpp_lex_784, mozcpp_lex_785, mozcpp_lex_786,
    mozcpp_lex_787, mozcpp_lex_788, mozcpp_lex_789, mozcpp_lex_790]"

definition mozcpp_lex_cases_62 :: "(bool \<Rightarrow> codepoint \<Rightarrow> lex_case) list" where
  "mozcpp_lex_cases_62 = [mozcpp_lex_791, mozcpp_lex_792, mozcpp_lex_793, mozcpp_lex_794,
    mozcpp_lex_795, mozcpp_lex_796, mozcpp_lex_797, mozcpp_lex_798, mozcpp_lex_799,
    mozcpp_lex_800, mozcpp_lex_801, mozcpp_lex_802]"

definition mozcpp_lex_cases_63 :: "(bool \<Rightarrow> codepoint \<Rightarrow> lex_case) list" where
  "mozcpp_lex_cases_63 = [mozcpp_lex_803, mozcpp_lex_804, mozcpp_lex_805, mozcpp_lex_806,
    mozcpp_lex_807, mozcpp_lex_808, mozcpp_lex_809, mozcpp_lex_810, mozcpp_lex_811,
    mozcpp_lex_812, mozcpp_lex_813, mozcpp_lex_814, mozcpp_lex_815, mozcpp_lex_816,
    mozcpp_lex_817, mozcpp_lex_818, mozcpp_lex_819, mozcpp_lex_820, mozcpp_lex_821,
    mozcpp_lex_822]"

definition mozcpp_lex_cases_64 :: "(bool \<Rightarrow> codepoint \<Rightarrow> lex_case) list" where
  "mozcpp_lex_cases_64 = [mozcpp_lex_823, mozcpp_lex_824, mozcpp_lex_825, mozcpp_lex_826,
    mozcpp_lex_827, mozcpp_lex_828, mozcpp_lex_829, mozcpp_lex_830, mozcpp_lex_831,
    mozcpp_lex_832, mozcpp_lex_833, mozcpp_lex_834, mozcpp_lex_835, mozcpp_lex_836,
    mozcpp_lex_837, mozcpp_lex_838, mozcpp_lex_839]"

definition mozcpp_lex_cases_65 :: "(bool \<Rightarrow> codepoint \<Rightarrow> lex_case) list" where
  "mozcpp_lex_cases_65 = [mozcpp_lex_840, mozcpp_lex_841, mozcpp_lex_842, mozcpp_lex_843,
    mozcpp_lex_844, mozcpp_lex_845, mozcpp_lex_846, mozcpp_lex_847, mozcpp_lex_848,
    mozcpp_lex_849, mozcpp_lex_850, mozcpp_lex_851, mozcpp_lex_852, mozcpp_lex_853,
    mozcpp_lex_854, mozcpp_lex_855, mozcpp_lex_856, mozcpp_lex_857, mozcpp_lex_858]"

definition mozcpp_lex_cases_66 :: "(bool \<Rightarrow> codepoint \<Rightarrow> lex_case) list" where
  "mozcpp_lex_cases_66 = [mozcpp_lex_859, mozcpp_lex_860, mozcpp_lex_861, mozcpp_lex_862,
    mozcpp_lex_863, mozcpp_lex_864, mozcpp_lex_865, mozcpp_lex_866, mozcpp_lex_867,
    mozcpp_lex_868, mozcpp_lex_869, mozcpp_lex_870, mozcpp_lex_871, mozcpp_lex_872,
    mozcpp_lex_873]"

definition mozcpp_lex_cases_67 :: "(bool \<Rightarrow> codepoint \<Rightarrow> lex_case) list" where
  "mozcpp_lex_cases_67 = [mozcpp_lex_874, mozcpp_lex_875, mozcpp_lex_876, mozcpp_lex_877,
    mozcpp_lex_878, mozcpp_lex_879, mozcpp_lex_880, mozcpp_lex_881, mozcpp_lex_882,
    mozcpp_lex_883, mozcpp_lex_884, mozcpp_lex_885, mozcpp_lex_886, mozcpp_lex_887,
    mozcpp_lex_888, mozcpp_lex_889, mozcpp_lex_890, mozcpp_lex_891, mozcpp_lex_892,
    mozcpp_lex_893, mozcpp_lex_894, mozcpp_lex_895]"

definition mozcpp_lex_cases_68 :: "(bool \<Rightarrow> codepoint \<Rightarrow> lex_case) list" where
  "mozcpp_lex_cases_68 = [mozcpp_lex_896, mozcpp_lex_897, mozcpp_lex_898, mozcpp_lex_899,
    mozcpp_lex_900, mozcpp_lex_901, mozcpp_lex_902, mozcpp_lex_903, mozcpp_lex_904,
    mozcpp_lex_905, mozcpp_lex_906, mozcpp_lex_907, mozcpp_lex_908, mozcpp_lex_909,
    mozcpp_lex_910, mozcpp_lex_911, mozcpp_lex_912, mozcpp_lex_913, mozcpp_lex_914,
    mozcpp_lex_915, mozcpp_lex_916, mozcpp_lex_917, mozcpp_lex_918, mozcpp_lex_919]"

definition mozcpp_lex_cases_69 :: "(bool \<Rightarrow> codepoint \<Rightarrow> lex_case) list" where
  "mozcpp_lex_cases_69 = [mozcpp_lex_920, mozcpp_lex_921, mozcpp_lex_922, mozcpp_lex_923,
    mozcpp_lex_924, mozcpp_lex_925, mozcpp_lex_926, mozcpp_lex_927, mozcpp_lex_928,
    mozcpp_lex_929, mozcpp_lex_930, mozcpp_lex_931, mozcpp_lex_932, mozcpp_lex_933,
    mozcpp_lex_934, mozcpp_lex_935, mozcpp_lex_936, mozcpp_lex_937, mozcpp_lex_938,
    mozcpp_lex_939, mozcpp_lex_940, mozcpp_lex_941, mozcpp_lex_942]"

definition mozcpp_lex_cases_70 :: "(bool \<Rightarrow> codepoint \<Rightarrow> lex_case) list" where
  "mozcpp_lex_cases_70 = [mozcpp_lex_943, mozcpp_lex_944, mozcpp_lex_945, mozcpp_lex_946,
    mozcpp_lex_947, mozcpp_lex_948, mozcpp_lex_949, mozcpp_lex_950, mozcpp_lex_951,
    mozcpp_lex_952, mozcpp_lex_953, mozcpp_lex_954, mozcpp_lex_955, mozcpp_lex_956,
    mozcpp_lex_957, mozcpp_lex_958, mozcpp_lex_959, mozcpp_lex_960, mozcpp_lex_961,
    mozcpp_lex_962, mozcpp_lex_963, mozcpp_lex_964, mozcpp_lex_965, mozcpp_lex_966]"

definition mozcpp_lex_cases_71 :: "(bool \<Rightarrow> codepoint \<Rightarrow> lex_case) list" where
  "mozcpp_lex_cases_71 = [mozcpp_lex_967, mozcpp_lex_968, mozcpp_lex_969, mozcpp_lex_970,
    mozcpp_lex_971, mozcpp_lex_972, mozcpp_lex_973, mozcpp_lex_974, mozcpp_lex_975,
    mozcpp_lex_976, mozcpp_lex_977, mozcpp_lex_978, mozcpp_lex_979, mozcpp_lex_980,
    mozcpp_lex_981, mozcpp_lex_982, mozcpp_lex_983, mozcpp_lex_984, mozcpp_lex_985,
    mozcpp_lex_986, mozcpp_lex_987, mozcpp_lex_988, mozcpp_lex_989]"

definition mozcpp_lex_cases_72 :: "(bool \<Rightarrow> codepoint \<Rightarrow> lex_case) list" where
  "mozcpp_lex_cases_72 = [mozcpp_lex_990, mozcpp_lex_991, mozcpp_lex_992, mozcpp_lex_993,
    mozcpp_lex_994, mozcpp_lex_995, mozcpp_lex_996, mozcpp_lex_997, mozcpp_lex_998,
    mozcpp_lex_999, mozcpp_lex_1000, mozcpp_lex_1001, mozcpp_lex_1002, mozcpp_lex_1003,
    mozcpp_lex_1004, mozcpp_lex_1005, mozcpp_lex_1006, mozcpp_lex_1007, mozcpp_lex_1008,
    mozcpp_lex_1009, mozcpp_lex_1010, mozcpp_lex_1011, mozcpp_lex_1012]"

definition mozcpp_lex_cases_73 :: "(bool \<Rightarrow> codepoint \<Rightarrow> lex_case) list" where
  "mozcpp_lex_cases_73 = [mozcpp_lex_1013, mozcpp_lex_1014, mozcpp_lex_1015, mozcpp_lex_1016,
    mozcpp_lex_1017, mozcpp_lex_1018, mozcpp_lex_1019, mozcpp_lex_1020, mozcpp_lex_1021,
    mozcpp_lex_1022, mozcpp_lex_1023, mozcpp_lex_1024, mozcpp_lex_1025, mozcpp_lex_1026,
    mozcpp_lex_1027, mozcpp_lex_1028, mozcpp_lex_1029, mozcpp_lex_1030, mozcpp_lex_1031,
    mozcpp_lex_1032, mozcpp_lex_1033, mozcpp_lex_1034, mozcpp_lex_1035, mozcpp_lex_1036,
    mozcpp_lex_1037]"

definition mozcpp_lex_cases_74 :: "(bool \<Rightarrow> codepoint \<Rightarrow> lex_case) list" where
  "mozcpp_lex_cases_74 = [mozcpp_lex_1038, mozcpp_lex_1039, mozcpp_lex_1040, mozcpp_lex_1041,
    mozcpp_lex_1042, mozcpp_lex_1043, mozcpp_lex_1044, mozcpp_lex_1045, mozcpp_lex_1046,
    mozcpp_lex_1047, mozcpp_lex_1048, mozcpp_lex_1049, mozcpp_lex_1050, mozcpp_lex_1051,
    mozcpp_lex_1052, mozcpp_lex_1053, mozcpp_lex_1054, mozcpp_lex_1055, mozcpp_lex_1056,
    mozcpp_lex_1057, mozcpp_lex_1058, mozcpp_lex_1059, mozcpp_lex_1060, mozcpp_lex_1061,
    mozcpp_lex_1062]"

definition mozcpp_lex_cases_75 :: "(bool \<Rightarrow> codepoint \<Rightarrow> lex_case) list" where
  "mozcpp_lex_cases_75 = [mozcpp_lex_1063, mozcpp_lex_1064, mozcpp_lex_1065, mozcpp_lex_1066,
    mozcpp_lex_1067, mozcpp_lex_1068, mozcpp_lex_1069, mozcpp_lex_1070, mozcpp_lex_1071,
    mozcpp_lex_1072, mozcpp_lex_1073, mozcpp_lex_1074, mozcpp_lex_1075, mozcpp_lex_1076,
    mozcpp_lex_1077, mozcpp_lex_1078, mozcpp_lex_1079, mozcpp_lex_1080, mozcpp_lex_1081,
    mozcpp_lex_1082, mozcpp_lex_1083, mozcpp_lex_1084, mozcpp_lex_1085]"

definition mozcpp_lex_cases_76 :: "(bool \<Rightarrow> codepoint \<Rightarrow> lex_case) list" where
  "mozcpp_lex_cases_76 = [mozcpp_lex_1086, mozcpp_lex_1087, mozcpp_lex_1088, mozcpp_lex_1089,
    mozcpp_lex_1090, mozcpp_lex_1091, mozcpp_lex_1092, mozcpp_lex_1093, mozcpp_lex_1094,
    mozcpp_lex_1095, mozcpp_lex_1096, mozcpp_lex_1097, mozcpp_lex_1098, mozcpp_lex_1099,
    mozcpp_lex_1100, mozcpp_lex_1101, mozcpp_lex_1102, mozcpp_lex_1103, mozcpp_lex_1104,
    mozcpp_lex_1105, mozcpp_lex_1106, mozcpp_lex_1107, mozcpp_lex_1108, mozcpp_lex_1109]"

definition mozcpp_lex_cases_77 :: "(bool \<Rightarrow> codepoint \<Rightarrow> lex_case) list" where
  "mozcpp_lex_cases_77 = [mozcpp_lex_1110, mozcpp_lex_1111, mozcpp_lex_1112, mozcpp_lex_1113,
    mozcpp_lex_1114, mozcpp_lex_1115, mozcpp_lex_1116, mozcpp_lex_1117, mozcpp_lex_1118,
    mozcpp_lex_1119, mozcpp_lex_1120, mozcpp_lex_1121, mozcpp_lex_1122, mozcpp_lex_1123,
    mozcpp_lex_1124, mozcpp_lex_1125, mozcpp_lex_1126, mozcpp_lex_1127, mozcpp_lex_1128,
    mozcpp_lex_1129, mozcpp_lex_1130, mozcpp_lex_1131, mozcpp_lex_1132, mozcpp_lex_1133]"

definition mozcpp_lex_cases_78 :: "(bool \<Rightarrow> codepoint \<Rightarrow> lex_case) list" where
  "mozcpp_lex_cases_78 = [mozcpp_lex_1134, mozcpp_lex_1135, mozcpp_lex_1136, mozcpp_lex_1137,
    mozcpp_lex_1138, mozcpp_lex_1139, mozcpp_lex_1140, mozcpp_lex_1141, mozcpp_lex_1142,
    mozcpp_lex_1143, mozcpp_lex_1144, mozcpp_lex_1145, mozcpp_lex_1146, mozcpp_lex_1147,
    mozcpp_lex_1148, mozcpp_lex_1149, mozcpp_lex_1150, mozcpp_lex_1151, mozcpp_lex_1152,
    mozcpp_lex_1153, mozcpp_lex_1154, mozcpp_lex_1155, mozcpp_lex_1156, mozcpp_lex_1157]"

definition mozcpp_lex_cases_79 :: "(bool \<Rightarrow> codepoint \<Rightarrow> lex_case) list" where
  "mozcpp_lex_cases_79 = [mozcpp_lex_1158, mozcpp_lex_1159, mozcpp_lex_1160, mozcpp_lex_1161,
    mozcpp_lex_1162, mozcpp_lex_1163, mozcpp_lex_1164, mozcpp_lex_1165, mozcpp_lex_1166,
    mozcpp_lex_1167, mozcpp_lex_1168, mozcpp_lex_1169, mozcpp_lex_1170, mozcpp_lex_1171,
    mozcpp_lex_1172, mozcpp_lex_1173, mozcpp_lex_1174, mozcpp_lex_1175, mozcpp_lex_1176,
    mozcpp_lex_1177, mozcpp_lex_1178, mozcpp_lex_1179, mozcpp_lex_1180]"

definition mozcpp_lex_cases_80 :: "(bool \<Rightarrow> codepoint \<Rightarrow> lex_case) list" where
  "mozcpp_lex_cases_80 = [mozcpp_lex_1181, mozcpp_lex_1182, mozcpp_lex_1183, mozcpp_lex_1184]"

definition mozcpp_lex_cases :: "(bool \<Rightarrow> codepoint \<Rightarrow> lex_case) list" where
  "mozcpp_lex_cases = mozcpp_lex_cases_0 @ mozcpp_lex_cases_1 @ mozcpp_lex_cases_2 @
    mozcpp_lex_cases_3 @ mozcpp_lex_cases_4 @ mozcpp_lex_cases_5 @ mozcpp_lex_cases_6 @
    mozcpp_lex_cases_7 @ mozcpp_lex_cases_8 @ mozcpp_lex_cases_9 @ mozcpp_lex_cases_10 @
    mozcpp_lex_cases_11 @ mozcpp_lex_cases_12 @ mozcpp_lex_cases_13 @ mozcpp_lex_cases_14 @
    mozcpp_lex_cases_15 @ mozcpp_lex_cases_16 @ mozcpp_lex_cases_17 @ mozcpp_lex_cases_18 @
    mozcpp_lex_cases_19 @ mozcpp_lex_cases_20 @ mozcpp_lex_cases_21 @ mozcpp_lex_cases_22 @
    mozcpp_lex_cases_23 @ mozcpp_lex_cases_24 @ mozcpp_lex_cases_25 @ mozcpp_lex_cases_26 @
    mozcpp_lex_cases_27 @ mozcpp_lex_cases_28 @ mozcpp_lex_cases_29 @ mozcpp_lex_cases_30 @
    mozcpp_lex_cases_31 @ mozcpp_lex_cases_32 @ mozcpp_lex_cases_33 @ mozcpp_lex_cases_34 @
    mozcpp_lex_cases_35 @ mozcpp_lex_cases_36 @ mozcpp_lex_cases_37 @ mozcpp_lex_cases_38 @
    mozcpp_lex_cases_39 @ mozcpp_lex_cases_40 @ mozcpp_lex_cases_41 @ mozcpp_lex_cases_42 @
    mozcpp_lex_cases_43 @ mozcpp_lex_cases_44 @ mozcpp_lex_cases_45 @ mozcpp_lex_cases_46 @
    mozcpp_lex_cases_47 @ mozcpp_lex_cases_48 @ mozcpp_lex_cases_49 @ mozcpp_lex_cases_50 @
    mozcpp_lex_cases_51 @ mozcpp_lex_cases_52 @ mozcpp_lex_cases_53 @ mozcpp_lex_cases_54 @
    mozcpp_lex_cases_55 @ mozcpp_lex_cases_56 @ mozcpp_lex_cases_57 @ mozcpp_lex_cases_58 @
    mozcpp_lex_cases_59 @ mozcpp_lex_cases_60 @ mozcpp_lex_cases_61 @ mozcpp_lex_cases_62 @
    mozcpp_lex_cases_63 @ mozcpp_lex_cases_64 @ mozcpp_lex_cases_65 @ mozcpp_lex_cases_66 @
    mozcpp_lex_cases_67 @ mozcpp_lex_cases_68 @ mozcpp_lex_cases_69 @ mozcpp_lex_cases_70 @
    mozcpp_lex_cases_71 @ mozcpp_lex_cases_72 @ mozcpp_lex_cases_73 @ mozcpp_lex_cases_74 @
    mozcpp_lex_cases_75 @ mozcpp_lex_cases_76 @ mozcpp_lex_cases_77 @ mozcpp_lex_cases_78 @
    mozcpp_lex_cases_79 @ mozcpp_lex_cases_80"

lemma mozcpp_lex_list:
  "mozcpp_lex_cases = [mozcpp_lex_0, mozcpp_lex_1, mozcpp_lex_2, mozcpp_lex_3, mozcpp_lex_4,
    mozcpp_lex_5, mozcpp_lex_6, mozcpp_lex_7, mozcpp_lex_8, mozcpp_lex_9, mozcpp_lex_10,
    mozcpp_lex_11, mozcpp_lex_12, mozcpp_lex_13, mozcpp_lex_14, mozcpp_lex_15, mozcpp_lex_16,
    mozcpp_lex_17, mozcpp_lex_18, mozcpp_lex_19, mozcpp_lex_20, mozcpp_lex_21, mozcpp_lex_22,
    mozcpp_lex_23, mozcpp_lex_24, mozcpp_lex_25, mozcpp_lex_26, mozcpp_lex_27, mozcpp_lex_28,
    mozcpp_lex_29, mozcpp_lex_30, mozcpp_lex_31, mozcpp_lex_32, mozcpp_lex_33, mozcpp_lex_34,
    mozcpp_lex_35, mozcpp_lex_36, mozcpp_lex_37, mozcpp_lex_38, mozcpp_lex_39, mozcpp_lex_40,
    mozcpp_lex_41, mozcpp_lex_42, mozcpp_lex_43, mozcpp_lex_44, mozcpp_lex_45, mozcpp_lex_46,
    mozcpp_lex_47, mozcpp_lex_48, mozcpp_lex_49, mozcpp_lex_50, mozcpp_lex_51, mozcpp_lex_52,
    mozcpp_lex_53, mozcpp_lex_54, mozcpp_lex_55, mozcpp_lex_56, mozcpp_lex_57, mozcpp_lex_58,
    mozcpp_lex_59, mozcpp_lex_60, mozcpp_lex_61, mozcpp_lex_62, mozcpp_lex_63, mozcpp_lex_64,
    mozcpp_lex_65, mozcpp_lex_66, mozcpp_lex_67, mozcpp_lex_68, mozcpp_lex_69, mozcpp_lex_70,
    mozcpp_lex_71, mozcpp_lex_72, mozcpp_lex_73, mozcpp_lex_74, mozcpp_lex_75, mozcpp_lex_76,
    mozcpp_lex_77, mozcpp_lex_78, mozcpp_lex_79, mozcpp_lex_80, mozcpp_lex_81, mozcpp_lex_82,
    mozcpp_lex_83, mozcpp_lex_84, mozcpp_lex_85, mozcpp_lex_86, mozcpp_lex_87, mozcpp_lex_88,
    mozcpp_lex_89, mozcpp_lex_90, mozcpp_lex_91, mozcpp_lex_92, mozcpp_lex_93, mozcpp_lex_94,
    mozcpp_lex_95, mozcpp_lex_96, mozcpp_lex_97, mozcpp_lex_98, mozcpp_lex_99, mozcpp_lex_100,
    mozcpp_lex_101, mozcpp_lex_102, mozcpp_lex_103, mozcpp_lex_104, mozcpp_lex_105,
    mozcpp_lex_106, mozcpp_lex_107, mozcpp_lex_108, mozcpp_lex_109, mozcpp_lex_110,
    mozcpp_lex_111, mozcpp_lex_112, mozcpp_lex_113, mozcpp_lex_114, mozcpp_lex_115,
    mozcpp_lex_116, mozcpp_lex_117, mozcpp_lex_118, mozcpp_lex_119, mozcpp_lex_120,
    mozcpp_lex_121, mozcpp_lex_122, mozcpp_lex_123, mozcpp_lex_124, mozcpp_lex_125,
    mozcpp_lex_126, mozcpp_lex_127, mozcpp_lex_128, mozcpp_lex_129, mozcpp_lex_130,
    mozcpp_lex_131, mozcpp_lex_132, mozcpp_lex_133, mozcpp_lex_134, mozcpp_lex_135,
    mozcpp_lex_136, mozcpp_lex_137, mozcpp_lex_138, mozcpp_lex_139, mozcpp_lex_140,
    mozcpp_lex_141, mozcpp_lex_142, mozcpp_lex_143, mozcpp_lex_144, mozcpp_lex_145,
    mozcpp_lex_146, mozcpp_lex_147, mozcpp_lex_148, mozcpp_lex_149, mozcpp_lex_150,
    mozcpp_lex_151, mozcpp_lex_152, mozcpp_lex_153, mozcpp_lex_154, mozcpp_lex_155,
    mozcpp_lex_156, mozcpp_lex_157, mozcpp_lex_158, mozcpp_lex_159, mozcpp_lex_160,
    mozcpp_lex_161, mozcpp_lex_162, mozcpp_lex_163, mozcpp_lex_164, mozcpp_lex_165,
    mozcpp_lex_166, mozcpp_lex_167, mozcpp_lex_168, mozcpp_lex_169, mozcpp_lex_170,
    mozcpp_lex_171, mozcpp_lex_172, mozcpp_lex_173, mozcpp_lex_174, mozcpp_lex_175,
    mozcpp_lex_176, mozcpp_lex_177, mozcpp_lex_178, mozcpp_lex_179, mozcpp_lex_180,
    mozcpp_lex_181, mozcpp_lex_182, mozcpp_lex_183, mozcpp_lex_184, mozcpp_lex_185,
    mozcpp_lex_186, mozcpp_lex_187, mozcpp_lex_188, mozcpp_lex_189, mozcpp_lex_190,
    mozcpp_lex_191, mozcpp_lex_192, mozcpp_lex_193, mozcpp_lex_194, mozcpp_lex_195,
    mozcpp_lex_196, mozcpp_lex_197, mozcpp_lex_198, mozcpp_lex_199, mozcpp_lex_200,
    mozcpp_lex_201, mozcpp_lex_202, mozcpp_lex_203, mozcpp_lex_204, mozcpp_lex_205,
    mozcpp_lex_206, mozcpp_lex_207, mozcpp_lex_208, mozcpp_lex_209, mozcpp_lex_210,
    mozcpp_lex_211, mozcpp_lex_212, mozcpp_lex_213, mozcpp_lex_214, mozcpp_lex_215,
    mozcpp_lex_216, mozcpp_lex_217, mozcpp_lex_218, mozcpp_lex_219, mozcpp_lex_220,
    mozcpp_lex_221, mozcpp_lex_222, mozcpp_lex_223, mozcpp_lex_224, mozcpp_lex_225,
    mozcpp_lex_226, mozcpp_lex_227, mozcpp_lex_228, mozcpp_lex_229, mozcpp_lex_230,
    mozcpp_lex_231, mozcpp_lex_232, mozcpp_lex_233, mozcpp_lex_234, mozcpp_lex_235,
    mozcpp_lex_236, mozcpp_lex_237, mozcpp_lex_238, mozcpp_lex_239, mozcpp_lex_240,
    mozcpp_lex_241, mozcpp_lex_242, mozcpp_lex_243, mozcpp_lex_244, mozcpp_lex_245,
    mozcpp_lex_246, mozcpp_lex_247, mozcpp_lex_248, mozcpp_lex_249, mozcpp_lex_250,
    mozcpp_lex_251, mozcpp_lex_252, mozcpp_lex_253, mozcpp_lex_254, mozcpp_lex_255,
    mozcpp_lex_256, mozcpp_lex_257, mozcpp_lex_258, mozcpp_lex_259, mozcpp_lex_260,
    mozcpp_lex_261, mozcpp_lex_262, mozcpp_lex_263, mozcpp_lex_264, mozcpp_lex_265,
    mozcpp_lex_266, mozcpp_lex_267, mozcpp_lex_268, mozcpp_lex_269, mozcpp_lex_270,
    mozcpp_lex_271, mozcpp_lex_272, mozcpp_lex_273, mozcpp_lex_274, mozcpp_lex_275,
    mozcpp_lex_276, mozcpp_lex_277, mozcpp_lex_278, mozcpp_lex_279, mozcpp_lex_280,
    mozcpp_lex_281, mozcpp_lex_282, mozcpp_lex_283, mozcpp_lex_284, mozcpp_lex_285,
    mozcpp_lex_286, mozcpp_lex_287, mozcpp_lex_288, mozcpp_lex_289, mozcpp_lex_290,
    mozcpp_lex_291, mozcpp_lex_292, mozcpp_lex_293, mozcpp_lex_294, mozcpp_lex_295,
    mozcpp_lex_296, mozcpp_lex_297, mozcpp_lex_298, mozcpp_lex_299, mozcpp_lex_300,
    mozcpp_lex_301, mozcpp_lex_302, mozcpp_lex_303, mozcpp_lex_304, mozcpp_lex_305,
    mozcpp_lex_306, mozcpp_lex_307, mozcpp_lex_308, mozcpp_lex_309, mozcpp_lex_310,
    mozcpp_lex_311, mozcpp_lex_312, mozcpp_lex_313, mozcpp_lex_314, mozcpp_lex_315,
    mozcpp_lex_316, mozcpp_lex_317, mozcpp_lex_318, mozcpp_lex_319, mozcpp_lex_320,
    mozcpp_lex_321, mozcpp_lex_322, mozcpp_lex_323, mozcpp_lex_324, mozcpp_lex_325,
    mozcpp_lex_326, mozcpp_lex_327, mozcpp_lex_328, mozcpp_lex_329, mozcpp_lex_330,
    mozcpp_lex_331, mozcpp_lex_332, mozcpp_lex_333, mozcpp_lex_334, mozcpp_lex_335,
    mozcpp_lex_336, mozcpp_lex_337, mozcpp_lex_338, mozcpp_lex_339, mozcpp_lex_340,
    mozcpp_lex_341, mozcpp_lex_342, mozcpp_lex_343, mozcpp_lex_344, mozcpp_lex_345,
    mozcpp_lex_346, mozcpp_lex_347, mozcpp_lex_348, mozcpp_lex_349, mozcpp_lex_350,
    mozcpp_lex_351, mozcpp_lex_352, mozcpp_lex_353, mozcpp_lex_354, mozcpp_lex_355,
    mozcpp_lex_356, mozcpp_lex_357, mozcpp_lex_358, mozcpp_lex_359, mozcpp_lex_360,
    mozcpp_lex_361, mozcpp_lex_362, mozcpp_lex_363, mozcpp_lex_364, mozcpp_lex_365,
    mozcpp_lex_366, mozcpp_lex_367, mozcpp_lex_368, mozcpp_lex_369, mozcpp_lex_370,
    mozcpp_lex_371, mozcpp_lex_372, mozcpp_lex_373, mozcpp_lex_374, mozcpp_lex_375,
    mozcpp_lex_376, mozcpp_lex_377, mozcpp_lex_378, mozcpp_lex_379, mozcpp_lex_380,
    mozcpp_lex_381, mozcpp_lex_382, mozcpp_lex_383, mozcpp_lex_384, mozcpp_lex_385,
    mozcpp_lex_386, mozcpp_lex_387, mozcpp_lex_388, mozcpp_lex_389, mozcpp_lex_390,
    mozcpp_lex_391, mozcpp_lex_392, mozcpp_lex_393, mozcpp_lex_394, mozcpp_lex_395,
    mozcpp_lex_396, mozcpp_lex_397, mozcpp_lex_398, mozcpp_lex_399, mozcpp_lex_400,
    mozcpp_lex_401, mozcpp_lex_402, mozcpp_lex_403, mozcpp_lex_404, mozcpp_lex_405,
    mozcpp_lex_406, mozcpp_lex_407, mozcpp_lex_408, mozcpp_lex_409, mozcpp_lex_410,
    mozcpp_lex_411, mozcpp_lex_412, mozcpp_lex_413, mozcpp_lex_414, mozcpp_lex_415,
    mozcpp_lex_416, mozcpp_lex_417, mozcpp_lex_418, mozcpp_lex_419, mozcpp_lex_420,
    mozcpp_lex_421, mozcpp_lex_422, mozcpp_lex_423, mozcpp_lex_424, mozcpp_lex_425,
    mozcpp_lex_426, mozcpp_lex_427, mozcpp_lex_428, mozcpp_lex_429, mozcpp_lex_430,
    mozcpp_lex_431, mozcpp_lex_432, mozcpp_lex_433, mozcpp_lex_434, mozcpp_lex_435,
    mozcpp_lex_436, mozcpp_lex_437, mozcpp_lex_438, mozcpp_lex_439, mozcpp_lex_440,
    mozcpp_lex_441, mozcpp_lex_442, mozcpp_lex_443, mozcpp_lex_444, mozcpp_lex_445,
    mozcpp_lex_446, mozcpp_lex_447, mozcpp_lex_448, mozcpp_lex_449, mozcpp_lex_450,
    mozcpp_lex_451, mozcpp_lex_452, mozcpp_lex_453, mozcpp_lex_454, mozcpp_lex_455,
    mozcpp_lex_456, mozcpp_lex_457, mozcpp_lex_458, mozcpp_lex_459, mozcpp_lex_460,
    mozcpp_lex_461, mozcpp_lex_462, mozcpp_lex_463, mozcpp_lex_464, mozcpp_lex_465,
    mozcpp_lex_466, mozcpp_lex_467, mozcpp_lex_468, mozcpp_lex_469, mozcpp_lex_470,
    mozcpp_lex_471, mozcpp_lex_472, mozcpp_lex_473, mozcpp_lex_474, mozcpp_lex_475,
    mozcpp_lex_476, mozcpp_lex_477, mozcpp_lex_478, mozcpp_lex_479, mozcpp_lex_480,
    mozcpp_lex_481, mozcpp_lex_482, mozcpp_lex_483, mozcpp_lex_484, mozcpp_lex_485,
    mozcpp_lex_486, mozcpp_lex_487, mozcpp_lex_488, mozcpp_lex_489, mozcpp_lex_490,
    mozcpp_lex_491, mozcpp_lex_492, mozcpp_lex_493, mozcpp_lex_494, mozcpp_lex_495,
    mozcpp_lex_496, mozcpp_lex_497, mozcpp_lex_498, mozcpp_lex_499, mozcpp_lex_500,
    mozcpp_lex_501, mozcpp_lex_502, mozcpp_lex_503, mozcpp_lex_504, mozcpp_lex_505,
    mozcpp_lex_506, mozcpp_lex_507, mozcpp_lex_508, mozcpp_lex_509, mozcpp_lex_510,
    mozcpp_lex_511, mozcpp_lex_512, mozcpp_lex_513, mozcpp_lex_514, mozcpp_lex_515,
    mozcpp_lex_516, mozcpp_lex_517, mozcpp_lex_518, mozcpp_lex_519, mozcpp_lex_520,
    mozcpp_lex_521, mozcpp_lex_522, mozcpp_lex_523, mozcpp_lex_524, mozcpp_lex_525,
    mozcpp_lex_526, mozcpp_lex_527, mozcpp_lex_528, mozcpp_lex_529, mozcpp_lex_530,
    mozcpp_lex_531, mozcpp_lex_532, mozcpp_lex_533, mozcpp_lex_534, mozcpp_lex_535,
    mozcpp_lex_536, mozcpp_lex_537, mozcpp_lex_538, mozcpp_lex_539, mozcpp_lex_540,
    mozcpp_lex_541, mozcpp_lex_542, mozcpp_lex_543, mozcpp_lex_544, mozcpp_lex_545,
    mozcpp_lex_546, mozcpp_lex_547, mozcpp_lex_548, mozcpp_lex_549, mozcpp_lex_550,
    mozcpp_lex_551, mozcpp_lex_552, mozcpp_lex_553, mozcpp_lex_554, mozcpp_lex_555,
    mozcpp_lex_556, mozcpp_lex_557, mozcpp_lex_558, mozcpp_lex_559, mozcpp_lex_560,
    mozcpp_lex_561, mozcpp_lex_562, mozcpp_lex_563, mozcpp_lex_564, mozcpp_lex_565,
    mozcpp_lex_566, mozcpp_lex_567, mozcpp_lex_568, mozcpp_lex_569, mozcpp_lex_570,
    mozcpp_lex_571, mozcpp_lex_572, mozcpp_lex_573, mozcpp_lex_574, mozcpp_lex_575,
    mozcpp_lex_576, mozcpp_lex_577, mozcpp_lex_578, mozcpp_lex_579, mozcpp_lex_580,
    mozcpp_lex_581, mozcpp_lex_582, mozcpp_lex_583, mozcpp_lex_584, mozcpp_lex_585,
    mozcpp_lex_586, mozcpp_lex_587, mozcpp_lex_588, mozcpp_lex_589, mozcpp_lex_590,
    mozcpp_lex_591, mozcpp_lex_592, mozcpp_lex_593, mozcpp_lex_594, mozcpp_lex_595,
    mozcpp_lex_596, mozcpp_lex_597, mozcpp_lex_598, mozcpp_lex_599, mozcpp_lex_600,
    mozcpp_lex_601, mozcpp_lex_602, mozcpp_lex_603, mozcpp_lex_604, mozcpp_lex_605,
    mozcpp_lex_606, mozcpp_lex_607, mozcpp_lex_608, mozcpp_lex_609, mozcpp_lex_610,
    mozcpp_lex_611, mozcpp_lex_612, mozcpp_lex_613, mozcpp_lex_614, mozcpp_lex_615,
    mozcpp_lex_616, mozcpp_lex_617, mozcpp_lex_618, mozcpp_lex_619, mozcpp_lex_620,
    mozcpp_lex_621, mozcpp_lex_622, mozcpp_lex_623, mozcpp_lex_624, mozcpp_lex_625,
    mozcpp_lex_626, mozcpp_lex_627, mozcpp_lex_628, mozcpp_lex_629, mozcpp_lex_630,
    mozcpp_lex_631, mozcpp_lex_632, mozcpp_lex_633, mozcpp_lex_634, mozcpp_lex_635,
    mozcpp_lex_636, mozcpp_lex_637, mozcpp_lex_638, mozcpp_lex_639, mozcpp_lex_640,
    mozcpp_lex_641, mozcpp_lex_642, mozcpp_lex_643, mozcpp_lex_644, mozcpp_lex_645,
    mozcpp_lex_646, mozcpp_lex_647, mozcpp_lex_648, mozcpp_lex_649, mozcpp_lex_650,
    mozcpp_lex_651, mozcpp_lex_652, mozcpp_lex_653, mozcpp_lex_654, mozcpp_lex_655,
    mozcpp_lex_656, mozcpp_lex_657, mozcpp_lex_658, mozcpp_lex_659, mozcpp_lex_660,
    mozcpp_lex_661, mozcpp_lex_662, mozcpp_lex_663, mozcpp_lex_664, mozcpp_lex_665,
    mozcpp_lex_666, mozcpp_lex_667, mozcpp_lex_668, mozcpp_lex_669, mozcpp_lex_670,
    mozcpp_lex_671, mozcpp_lex_672, mozcpp_lex_673, mozcpp_lex_674, mozcpp_lex_675,
    mozcpp_lex_676, mozcpp_lex_677, mozcpp_lex_678, mozcpp_lex_679, mozcpp_lex_680,
    mozcpp_lex_681, mozcpp_lex_682, mozcpp_lex_683, mozcpp_lex_684, mozcpp_lex_685,
    mozcpp_lex_686, mozcpp_lex_687, mozcpp_lex_688, mozcpp_lex_689, mozcpp_lex_690,
    mozcpp_lex_691, mozcpp_lex_692, mozcpp_lex_693, mozcpp_lex_694, mozcpp_lex_695,
    mozcpp_lex_696, mozcpp_lex_697, mozcpp_lex_698, mozcpp_lex_699, mozcpp_lex_700,
    mozcpp_lex_701, mozcpp_lex_702, mozcpp_lex_703, mozcpp_lex_704, mozcpp_lex_705,
    mozcpp_lex_706, mozcpp_lex_707, mozcpp_lex_708, mozcpp_lex_709, mozcpp_lex_710,
    mozcpp_lex_711, mozcpp_lex_712, mozcpp_lex_713, mozcpp_lex_714, mozcpp_lex_715,
    mozcpp_lex_716, mozcpp_lex_717, mozcpp_lex_718, mozcpp_lex_719, mozcpp_lex_720,
    mozcpp_lex_721, mozcpp_lex_722, mozcpp_lex_723, mozcpp_lex_724, mozcpp_lex_725,
    mozcpp_lex_726, mozcpp_lex_727, mozcpp_lex_728, mozcpp_lex_729, mozcpp_lex_730,
    mozcpp_lex_731, mozcpp_lex_732, mozcpp_lex_733, mozcpp_lex_734, mozcpp_lex_735,
    mozcpp_lex_736, mozcpp_lex_737, mozcpp_lex_738, mozcpp_lex_739, mozcpp_lex_740,
    mozcpp_lex_741, mozcpp_lex_742, mozcpp_lex_743, mozcpp_lex_744, mozcpp_lex_745,
    mozcpp_lex_746, mozcpp_lex_747, mozcpp_lex_748, mozcpp_lex_749, mozcpp_lex_750,
    mozcpp_lex_751, mozcpp_lex_752, mozcpp_lex_753, mozcpp_lex_754, mozcpp_lex_755,
    mozcpp_lex_756, mozcpp_lex_757, mozcpp_lex_758, mozcpp_lex_759, mozcpp_lex_760,
    mozcpp_lex_761, mozcpp_lex_762, mozcpp_lex_763, mozcpp_lex_764, mozcpp_lex_765,
    mozcpp_lex_766, mozcpp_lex_767, mozcpp_lex_768, mozcpp_lex_769, mozcpp_lex_770,
    mozcpp_lex_771, mozcpp_lex_772, mozcpp_lex_773, mozcpp_lex_774, mozcpp_lex_775,
    mozcpp_lex_776, mozcpp_lex_777, mozcpp_lex_778, mozcpp_lex_779, mozcpp_lex_780,
    mozcpp_lex_781, mozcpp_lex_782, mozcpp_lex_783, mozcpp_lex_784, mozcpp_lex_785,
    mozcpp_lex_786, mozcpp_lex_787, mozcpp_lex_788, mozcpp_lex_789, mozcpp_lex_790,
    mozcpp_lex_791, mozcpp_lex_792, mozcpp_lex_793, mozcpp_lex_794, mozcpp_lex_795,
    mozcpp_lex_796, mozcpp_lex_797, mozcpp_lex_798, mozcpp_lex_799, mozcpp_lex_800,
    mozcpp_lex_801, mozcpp_lex_802, mozcpp_lex_803, mozcpp_lex_804, mozcpp_lex_805,
    mozcpp_lex_806, mozcpp_lex_807, mozcpp_lex_808, mozcpp_lex_809, mozcpp_lex_810,
    mozcpp_lex_811, mozcpp_lex_812, mozcpp_lex_813, mozcpp_lex_814, mozcpp_lex_815,
    mozcpp_lex_816, mozcpp_lex_817, mozcpp_lex_818, mozcpp_lex_819, mozcpp_lex_820,
    mozcpp_lex_821, mozcpp_lex_822, mozcpp_lex_823, mozcpp_lex_824, mozcpp_lex_825,
    mozcpp_lex_826, mozcpp_lex_827, mozcpp_lex_828, mozcpp_lex_829, mozcpp_lex_830,
    mozcpp_lex_831, mozcpp_lex_832, mozcpp_lex_833, mozcpp_lex_834, mozcpp_lex_835,
    mozcpp_lex_836, mozcpp_lex_837, mozcpp_lex_838, mozcpp_lex_839, mozcpp_lex_840,
    mozcpp_lex_841, mozcpp_lex_842, mozcpp_lex_843, mozcpp_lex_844, mozcpp_lex_845,
    mozcpp_lex_846, mozcpp_lex_847, mozcpp_lex_848, mozcpp_lex_849, mozcpp_lex_850,
    mozcpp_lex_851, mozcpp_lex_852, mozcpp_lex_853, mozcpp_lex_854, mozcpp_lex_855,
    mozcpp_lex_856, mozcpp_lex_857, mozcpp_lex_858, mozcpp_lex_859, mozcpp_lex_860,
    mozcpp_lex_861, mozcpp_lex_862, mozcpp_lex_863, mozcpp_lex_864, mozcpp_lex_865,
    mozcpp_lex_866, mozcpp_lex_867, mozcpp_lex_868, mozcpp_lex_869, mozcpp_lex_870,
    mozcpp_lex_871, mozcpp_lex_872, mozcpp_lex_873, mozcpp_lex_874, mozcpp_lex_875,
    mozcpp_lex_876, mozcpp_lex_877, mozcpp_lex_878, mozcpp_lex_879, mozcpp_lex_880,
    mozcpp_lex_881, mozcpp_lex_882, mozcpp_lex_883, mozcpp_lex_884, mozcpp_lex_885,
    mozcpp_lex_886, mozcpp_lex_887, mozcpp_lex_888, mozcpp_lex_889, mozcpp_lex_890,
    mozcpp_lex_891, mozcpp_lex_892, mozcpp_lex_893, mozcpp_lex_894, mozcpp_lex_895,
    mozcpp_lex_896, mozcpp_lex_897, mozcpp_lex_898, mozcpp_lex_899, mozcpp_lex_900,
    mozcpp_lex_901, mozcpp_lex_902, mozcpp_lex_903, mozcpp_lex_904, mozcpp_lex_905,
    mozcpp_lex_906, mozcpp_lex_907, mozcpp_lex_908, mozcpp_lex_909, mozcpp_lex_910,
    mozcpp_lex_911, mozcpp_lex_912, mozcpp_lex_913, mozcpp_lex_914, mozcpp_lex_915,
    mozcpp_lex_916, mozcpp_lex_917, mozcpp_lex_918, mozcpp_lex_919, mozcpp_lex_920,
    mozcpp_lex_921, mozcpp_lex_922, mozcpp_lex_923, mozcpp_lex_924, mozcpp_lex_925,
    mozcpp_lex_926, mozcpp_lex_927, mozcpp_lex_928, mozcpp_lex_929, mozcpp_lex_930,
    mozcpp_lex_931, mozcpp_lex_932, mozcpp_lex_933, mozcpp_lex_934, mozcpp_lex_935,
    mozcpp_lex_936, mozcpp_lex_937, mozcpp_lex_938, mozcpp_lex_939, mozcpp_lex_940,
    mozcpp_lex_941, mozcpp_lex_942, mozcpp_lex_943, mozcpp_lex_944, mozcpp_lex_945,
    mozcpp_lex_946, mozcpp_lex_947, mozcpp_lex_948, mozcpp_lex_949, mozcpp_lex_950,
    mozcpp_lex_951, mozcpp_lex_952, mozcpp_lex_953, mozcpp_lex_954, mozcpp_lex_955,
    mozcpp_lex_956, mozcpp_lex_957, mozcpp_lex_958, mozcpp_lex_959, mozcpp_lex_960,
    mozcpp_lex_961, mozcpp_lex_962, mozcpp_lex_963, mozcpp_lex_964, mozcpp_lex_965,
    mozcpp_lex_966, mozcpp_lex_967, mozcpp_lex_968, mozcpp_lex_969, mozcpp_lex_970,
    mozcpp_lex_971, mozcpp_lex_972, mozcpp_lex_973, mozcpp_lex_974, mozcpp_lex_975,
    mozcpp_lex_976, mozcpp_lex_977, mozcpp_lex_978, mozcpp_lex_979, mozcpp_lex_980,
    mozcpp_lex_981, mozcpp_lex_982, mozcpp_lex_983, mozcpp_lex_984, mozcpp_lex_985,
    mozcpp_lex_986, mozcpp_lex_987, mozcpp_lex_988, mozcpp_lex_989, mozcpp_lex_990,
    mozcpp_lex_991, mozcpp_lex_992, mozcpp_lex_993, mozcpp_lex_994, mozcpp_lex_995,
    mozcpp_lex_996, mozcpp_lex_997, mozcpp_lex_998, mozcpp_lex_999, mozcpp_lex_1000,
    mozcpp_lex_1001, mozcpp_lex_1002, mozcpp_lex_1003, mozcpp_lex_1004, mozcpp_lex_1005,
    mozcpp_lex_1006, mozcpp_lex_1007, mozcpp_lex_1008, mozcpp_lex_1009, mozcpp_lex_1010,
    mozcpp_lex_1011, mozcpp_lex_1012, mozcpp_lex_1013, mozcpp_lex_1014, mozcpp_lex_1015,
    mozcpp_lex_1016, mozcpp_lex_1017, mozcpp_lex_1018, mozcpp_lex_1019, mozcpp_lex_1020,
    mozcpp_lex_1021, mozcpp_lex_1022, mozcpp_lex_1023, mozcpp_lex_1024, mozcpp_lex_1025,
    mozcpp_lex_1026, mozcpp_lex_1027, mozcpp_lex_1028, mozcpp_lex_1029, mozcpp_lex_1030,
    mozcpp_lex_1031, mozcpp_lex_1032, mozcpp_lex_1033, mozcpp_lex_1034, mozcpp_lex_1035,
    mozcpp_lex_1036, mozcpp_lex_1037, mozcpp_lex_1038, mozcpp_lex_1039, mozcpp_lex_1040,
    mozcpp_lex_1041, mozcpp_lex_1042, mozcpp_lex_1043, mozcpp_lex_1044, mozcpp_lex_1045,
    mozcpp_lex_1046, mozcpp_lex_1047, mozcpp_lex_1048, mozcpp_lex_1049, mozcpp_lex_1050,
    mozcpp_lex_1051, mozcpp_lex_1052, mozcpp_lex_1053, mozcpp_lex_1054, mozcpp_lex_1055,
    mozcpp_lex_1056, mozcpp_lex_1057, mozcpp_lex_1058, mozcpp_lex_1059, mozcpp_lex_1060,
    mozcpp_lex_1061, mozcpp_lex_1062, mozcpp_lex_1063, mozcpp_lex_1064, mozcpp_lex_1065,
    mozcpp_lex_1066, mozcpp_lex_1067, mozcpp_lex_1068, mozcpp_lex_1069, mozcpp_lex_1070,
    mozcpp_lex_1071, mozcpp_lex_1072, mozcpp_lex_1073, mozcpp_lex_1074, mozcpp_lex_1075,
    mozcpp_lex_1076, mozcpp_lex_1077, mozcpp_lex_1078, mozcpp_lex_1079, mozcpp_lex_1080,
    mozcpp_lex_1081, mozcpp_lex_1082, mozcpp_lex_1083, mozcpp_lex_1084, mozcpp_lex_1085,
    mozcpp_lex_1086, mozcpp_lex_1087, mozcpp_lex_1088, mozcpp_lex_1089, mozcpp_lex_1090,
    mozcpp_lex_1091, mozcpp_lex_1092, mozcpp_lex_1093, mozcpp_lex_1094, mozcpp_lex_1095,
    mozcpp_lex_1096, mozcpp_lex_1097, mozcpp_lex_1098, mozcpp_lex_1099, mozcpp_lex_1100,
    mozcpp_lex_1101, mozcpp_lex_1102, mozcpp_lex_1103, mozcpp_lex_1104, mozcpp_lex_1105,
    mozcpp_lex_1106, mozcpp_lex_1107, mozcpp_lex_1108, mozcpp_lex_1109, mozcpp_lex_1110,
    mozcpp_lex_1111, mozcpp_lex_1112, mozcpp_lex_1113, mozcpp_lex_1114, mozcpp_lex_1115,
    mozcpp_lex_1116, mozcpp_lex_1117, mozcpp_lex_1118, mozcpp_lex_1119, mozcpp_lex_1120,
    mozcpp_lex_1121, mozcpp_lex_1122, mozcpp_lex_1123, mozcpp_lex_1124, mozcpp_lex_1125,
    mozcpp_lex_1126, mozcpp_lex_1127, mozcpp_lex_1128, mozcpp_lex_1129, mozcpp_lex_1130,
    mozcpp_lex_1131, mozcpp_lex_1132, mozcpp_lex_1133, mozcpp_lex_1134, mozcpp_lex_1135,
    mozcpp_lex_1136, mozcpp_lex_1137, mozcpp_lex_1138, mozcpp_lex_1139, mozcpp_lex_1140,
    mozcpp_lex_1141, mozcpp_lex_1142, mozcpp_lex_1143, mozcpp_lex_1144, mozcpp_lex_1145,
    mozcpp_lex_1146, mozcpp_lex_1147, mozcpp_lex_1148, mozcpp_lex_1149, mozcpp_lex_1150,
    mozcpp_lex_1151, mozcpp_lex_1152, mozcpp_lex_1153, mozcpp_lex_1154, mozcpp_lex_1155,
    mozcpp_lex_1156, mozcpp_lex_1157, mozcpp_lex_1158, mozcpp_lex_1159, mozcpp_lex_1160,
    mozcpp_lex_1161, mozcpp_lex_1162, mozcpp_lex_1163, mozcpp_lex_1164, mozcpp_lex_1165,
    mozcpp_lex_1166, mozcpp_lex_1167, mozcpp_lex_1168, mozcpp_lex_1169, mozcpp_lex_1170,
    mozcpp_lex_1171, mozcpp_lex_1172, mozcpp_lex_1173, mozcpp_lex_1174, mozcpp_lex_1175,
    mozcpp_lex_1176, mozcpp_lex_1177, mozcpp_lex_1178, mozcpp_lex_1179, mozcpp_lex_1180,
    mozcpp_lex_1181, mozcpp_lex_1182, mozcpp_lex_1183, mozcpp_lex_1184]"
  by (simp add: mozcpp_lex_cases_def mozcpp_lex_cases_0_def mozcpp_lex_cases_1_def
    mozcpp_lex_cases_2_def mozcpp_lex_cases_3_def mozcpp_lex_cases_4_def mozcpp_lex_cases_5_def
    mozcpp_lex_cases_6_def mozcpp_lex_cases_7_def mozcpp_lex_cases_8_def mozcpp_lex_cases_9_def
    mozcpp_lex_cases_10_def mozcpp_lex_cases_11_def mozcpp_lex_cases_12_def
    mozcpp_lex_cases_13_def mozcpp_lex_cases_14_def mozcpp_lex_cases_15_def
    mozcpp_lex_cases_16_def mozcpp_lex_cases_17_def mozcpp_lex_cases_18_def
    mozcpp_lex_cases_19_def mozcpp_lex_cases_20_def mozcpp_lex_cases_21_def
    mozcpp_lex_cases_22_def mozcpp_lex_cases_23_def mozcpp_lex_cases_24_def
    mozcpp_lex_cases_25_def mozcpp_lex_cases_26_def mozcpp_lex_cases_27_def
    mozcpp_lex_cases_28_def mozcpp_lex_cases_29_def mozcpp_lex_cases_30_def
    mozcpp_lex_cases_31_def mozcpp_lex_cases_32_def mozcpp_lex_cases_33_def
    mozcpp_lex_cases_34_def mozcpp_lex_cases_35_def mozcpp_lex_cases_36_def
    mozcpp_lex_cases_37_def mozcpp_lex_cases_38_def mozcpp_lex_cases_39_def
    mozcpp_lex_cases_40_def mozcpp_lex_cases_41_def mozcpp_lex_cases_42_def
    mozcpp_lex_cases_43_def mozcpp_lex_cases_44_def mozcpp_lex_cases_45_def
    mozcpp_lex_cases_46_def mozcpp_lex_cases_47_def mozcpp_lex_cases_48_def
    mozcpp_lex_cases_49_def mozcpp_lex_cases_50_def mozcpp_lex_cases_51_def
    mozcpp_lex_cases_52_def mozcpp_lex_cases_53_def mozcpp_lex_cases_54_def
    mozcpp_lex_cases_55_def mozcpp_lex_cases_56_def mozcpp_lex_cases_57_def
    mozcpp_lex_cases_58_def mozcpp_lex_cases_59_def mozcpp_lex_cases_60_def
    mozcpp_lex_cases_61_def mozcpp_lex_cases_62_def mozcpp_lex_cases_63_def
    mozcpp_lex_cases_64_def mozcpp_lex_cases_65_def mozcpp_lex_cases_66_def
    mozcpp_lex_cases_67_def mozcpp_lex_cases_68_def mozcpp_lex_cases_69_def
    mozcpp_lex_cases_70_def mozcpp_lex_cases_71_def mozcpp_lex_cases_72_def
    mozcpp_lex_cases_73_def mozcpp_lex_cases_74_def mozcpp_lex_cases_75_def
    mozcpp_lex_cases_76_def mozcpp_lex_cases_77_def mozcpp_lex_cases_78_def
    mozcpp_lex_cases_79_def mozcpp_lex_cases_80_def)

definition mozcpp_ts_lex :: lex_switch where
  "mozcpp_ts_lex state eof la =
     (if state < 1185 then Some ((mozcpp_lex_cases ! state) eof la) else None)"

lemmas mozcpp_lex_defs =
  mozcpp_lex_0_def mozcpp_lex_1_def mozcpp_lex_2_def mozcpp_lex_3_def mozcpp_lex_4_def
    mozcpp_lex_5_def mozcpp_lex_6_def mozcpp_lex_7_def mozcpp_lex_8_def mozcpp_lex_9_def
    mozcpp_lex_10_def mozcpp_lex_11_def mozcpp_lex_12_def mozcpp_lex_13_def mozcpp_lex_14_def
    mozcpp_lex_15_def mozcpp_lex_16_def mozcpp_lex_17_def mozcpp_lex_18_def mozcpp_lex_19_def
    mozcpp_lex_20_def mozcpp_lex_21_def mozcpp_lex_22_def mozcpp_lex_23_def mozcpp_lex_24_def
    mozcpp_lex_25_def mozcpp_lex_26_def mozcpp_lex_27_def mozcpp_lex_28_def mozcpp_lex_29_def
    mozcpp_lex_30_def mozcpp_lex_31_def mozcpp_lex_32_def mozcpp_lex_33_def mozcpp_lex_34_def
    mozcpp_lex_35_def mozcpp_lex_36_def mozcpp_lex_37_def mozcpp_lex_38_def mozcpp_lex_39_def
    mozcpp_lex_40_def mozcpp_lex_41_def mozcpp_lex_42_def mozcpp_lex_43_def mozcpp_lex_44_def
    mozcpp_lex_45_def mozcpp_lex_46_def mozcpp_lex_47_def mozcpp_lex_48_def mozcpp_lex_49_def
    mozcpp_lex_50_def mozcpp_lex_51_def mozcpp_lex_52_def mozcpp_lex_53_def mozcpp_lex_54_def
    mozcpp_lex_55_def mozcpp_lex_56_def mozcpp_lex_57_def mozcpp_lex_58_def mozcpp_lex_59_def
    mozcpp_lex_60_def mozcpp_lex_61_def mozcpp_lex_62_def mozcpp_lex_63_def mozcpp_lex_64_def
    mozcpp_lex_65_def mozcpp_lex_66_def mozcpp_lex_67_def mozcpp_lex_68_def mozcpp_lex_69_def
    mozcpp_lex_70_def mozcpp_lex_71_def mozcpp_lex_72_def mozcpp_lex_73_def mozcpp_lex_74_def
    mozcpp_lex_75_def mozcpp_lex_76_def mozcpp_lex_77_def mozcpp_lex_78_def mozcpp_lex_79_def
    mozcpp_lex_80_def mozcpp_lex_81_def mozcpp_lex_82_def mozcpp_lex_83_def mozcpp_lex_84_def
    mozcpp_lex_85_def mozcpp_lex_86_def mozcpp_lex_87_def mozcpp_lex_88_def mozcpp_lex_89_def
    mozcpp_lex_90_def mozcpp_lex_91_def mozcpp_lex_92_def mozcpp_lex_93_def mozcpp_lex_94_def
    mozcpp_lex_95_def mozcpp_lex_96_def mozcpp_lex_97_def mozcpp_lex_98_def mozcpp_lex_99_def
    mozcpp_lex_100_def mozcpp_lex_101_def mozcpp_lex_102_def mozcpp_lex_103_def
    mozcpp_lex_104_def mozcpp_lex_105_def mozcpp_lex_106_def mozcpp_lex_107_def
    mozcpp_lex_108_def mozcpp_lex_109_def mozcpp_lex_110_def mozcpp_lex_111_def
    mozcpp_lex_112_def mozcpp_lex_113_def mozcpp_lex_114_def mozcpp_lex_115_def
    mozcpp_lex_116_def mozcpp_lex_117_def mozcpp_lex_118_def mozcpp_lex_119_def
    mozcpp_lex_120_def mozcpp_lex_121_def mozcpp_lex_122_def mozcpp_lex_123_def
    mozcpp_lex_124_def mozcpp_lex_125_def mozcpp_lex_126_def mozcpp_lex_127_def
    mozcpp_lex_128_def mozcpp_lex_129_def mozcpp_lex_130_def mozcpp_lex_131_def
    mozcpp_lex_132_def mozcpp_lex_133_def mozcpp_lex_134_def mozcpp_lex_135_def
    mozcpp_lex_136_def mozcpp_lex_137_def mozcpp_lex_138_def mozcpp_lex_139_def
    mozcpp_lex_140_def mozcpp_lex_141_def mozcpp_lex_142_def mozcpp_lex_143_def
    mozcpp_lex_144_def mozcpp_lex_145_def mozcpp_lex_146_def mozcpp_lex_147_def
    mozcpp_lex_148_def mozcpp_lex_149_def mozcpp_lex_150_def mozcpp_lex_151_def
    mozcpp_lex_152_def mozcpp_lex_153_def mozcpp_lex_154_def mozcpp_lex_155_def
    mozcpp_lex_156_def mozcpp_lex_157_def mozcpp_lex_158_def mozcpp_lex_159_def
    mozcpp_lex_160_def mozcpp_lex_161_def mozcpp_lex_162_def mozcpp_lex_163_def
    mozcpp_lex_164_def mozcpp_lex_165_def mozcpp_lex_166_def mozcpp_lex_167_def
    mozcpp_lex_168_def mozcpp_lex_169_def mozcpp_lex_170_def mozcpp_lex_171_def
    mozcpp_lex_172_def mozcpp_lex_173_def mozcpp_lex_174_def mozcpp_lex_175_def
    mozcpp_lex_176_def mozcpp_lex_177_def mozcpp_lex_178_def mozcpp_lex_179_def
    mozcpp_lex_180_def mozcpp_lex_181_def mozcpp_lex_182_def mozcpp_lex_183_def
    mozcpp_lex_184_def mozcpp_lex_185_def mozcpp_lex_186_def mozcpp_lex_187_def
    mozcpp_lex_188_def mozcpp_lex_189_def mozcpp_lex_190_def mozcpp_lex_191_def
    mozcpp_lex_192_def mozcpp_lex_193_def mozcpp_lex_194_def mozcpp_lex_195_def
    mozcpp_lex_196_def mozcpp_lex_197_def mozcpp_lex_198_def mozcpp_lex_199_def
    mozcpp_lex_200_def mozcpp_lex_201_def mozcpp_lex_202_def mozcpp_lex_203_def
    mozcpp_lex_204_def mozcpp_lex_205_def mozcpp_lex_206_def mozcpp_lex_207_def
    mozcpp_lex_208_def mozcpp_lex_209_def mozcpp_lex_210_def mozcpp_lex_211_def
    mozcpp_lex_212_def mozcpp_lex_213_def mozcpp_lex_214_def mozcpp_lex_215_def
    mozcpp_lex_216_def mozcpp_lex_217_def mozcpp_lex_218_def mozcpp_lex_219_def
    mozcpp_lex_220_def mozcpp_lex_221_def mozcpp_lex_222_def mozcpp_lex_223_def
    mozcpp_lex_224_def mozcpp_lex_225_def mozcpp_lex_226_def mozcpp_lex_227_def
    mozcpp_lex_228_def mozcpp_lex_229_def mozcpp_lex_230_def mozcpp_lex_231_def
    mozcpp_lex_232_def mozcpp_lex_233_def mozcpp_lex_234_def mozcpp_lex_235_def
    mozcpp_lex_236_def mozcpp_lex_237_def mozcpp_lex_238_def mozcpp_lex_239_def
    mozcpp_lex_240_def mozcpp_lex_241_def mozcpp_lex_242_def mozcpp_lex_243_def
    mozcpp_lex_244_def mozcpp_lex_245_def mozcpp_lex_246_def mozcpp_lex_247_def
    mozcpp_lex_248_def mozcpp_lex_249_def mozcpp_lex_250_def mozcpp_lex_251_def
    mozcpp_lex_252_def mozcpp_lex_253_def mozcpp_lex_254_def mozcpp_lex_255_def
    mozcpp_lex_256_def mozcpp_lex_257_def mozcpp_lex_258_def mozcpp_lex_259_def
    mozcpp_lex_260_def mozcpp_lex_261_def mozcpp_lex_262_def mozcpp_lex_263_def
    mozcpp_lex_264_def mozcpp_lex_265_def mozcpp_lex_266_def mozcpp_lex_267_def
    mozcpp_lex_268_def mozcpp_lex_269_def mozcpp_lex_270_def mozcpp_lex_271_def
    mozcpp_lex_272_def mozcpp_lex_273_def mozcpp_lex_274_def mozcpp_lex_275_def
    mozcpp_lex_276_def mozcpp_lex_277_def mozcpp_lex_278_def mozcpp_lex_279_def
    mozcpp_lex_280_def mozcpp_lex_281_def mozcpp_lex_282_def mozcpp_lex_283_def
    mozcpp_lex_284_def mozcpp_lex_285_def mozcpp_lex_286_def mozcpp_lex_287_def
    mozcpp_lex_288_def mozcpp_lex_289_def mozcpp_lex_290_def mozcpp_lex_291_def
    mozcpp_lex_292_def mozcpp_lex_293_def mozcpp_lex_294_def mozcpp_lex_295_def
    mozcpp_lex_296_def mozcpp_lex_297_def mozcpp_lex_298_def mozcpp_lex_299_def
    mozcpp_lex_300_def mozcpp_lex_301_def mozcpp_lex_302_def mozcpp_lex_303_def
    mozcpp_lex_304_def mozcpp_lex_305_def mozcpp_lex_306_def mozcpp_lex_307_def
    mozcpp_lex_308_def mozcpp_lex_309_def mozcpp_lex_310_def mozcpp_lex_311_def
    mozcpp_lex_312_def mozcpp_lex_313_def mozcpp_lex_314_def mozcpp_lex_315_def
    mozcpp_lex_316_def mozcpp_lex_317_def mozcpp_lex_318_def mozcpp_lex_319_def
    mozcpp_lex_320_def mozcpp_lex_321_def mozcpp_lex_322_def mozcpp_lex_323_def
    mozcpp_lex_324_def mozcpp_lex_325_def mozcpp_lex_326_def mozcpp_lex_327_def
    mozcpp_lex_328_def mozcpp_lex_329_def mozcpp_lex_330_def mozcpp_lex_331_def
    mozcpp_lex_332_def mozcpp_lex_333_def mozcpp_lex_334_def mozcpp_lex_335_def
    mozcpp_lex_336_def mozcpp_lex_337_def mozcpp_lex_338_def mozcpp_lex_339_def
    mozcpp_lex_340_def mozcpp_lex_341_def mozcpp_lex_342_def mozcpp_lex_343_def
    mozcpp_lex_344_def mozcpp_lex_345_def mozcpp_lex_346_def mozcpp_lex_347_def
    mozcpp_lex_348_def mozcpp_lex_349_def mozcpp_lex_350_def mozcpp_lex_351_def
    mozcpp_lex_352_def mozcpp_lex_353_def mozcpp_lex_354_def mozcpp_lex_355_def
    mozcpp_lex_356_def mozcpp_lex_357_def mozcpp_lex_358_def mozcpp_lex_359_def
    mozcpp_lex_360_def mozcpp_lex_361_def mozcpp_lex_362_def mozcpp_lex_363_def
    mozcpp_lex_364_def mozcpp_lex_365_def mozcpp_lex_366_def mozcpp_lex_367_def
    mozcpp_lex_368_def mozcpp_lex_369_def mozcpp_lex_370_def mozcpp_lex_371_def
    mozcpp_lex_372_def mozcpp_lex_373_def mozcpp_lex_374_def mozcpp_lex_375_def
    mozcpp_lex_376_def mozcpp_lex_377_def mozcpp_lex_378_def mozcpp_lex_379_def
    mozcpp_lex_380_def mozcpp_lex_381_def mozcpp_lex_382_def mozcpp_lex_383_def
    mozcpp_lex_384_def mozcpp_lex_385_def mozcpp_lex_386_def mozcpp_lex_387_def
    mozcpp_lex_388_def mozcpp_lex_389_def mozcpp_lex_390_def mozcpp_lex_391_def
    mozcpp_lex_392_def mozcpp_lex_393_def mozcpp_lex_394_def mozcpp_lex_395_def
    mozcpp_lex_396_def mozcpp_lex_397_def mozcpp_lex_398_def mozcpp_lex_399_def
    mozcpp_lex_400_def mozcpp_lex_401_def mozcpp_lex_402_def mozcpp_lex_403_def
    mozcpp_lex_404_def mozcpp_lex_405_def mozcpp_lex_406_def mozcpp_lex_407_def
    mozcpp_lex_408_def mozcpp_lex_409_def mozcpp_lex_410_def mozcpp_lex_411_def
    mozcpp_lex_412_def mozcpp_lex_413_def mozcpp_lex_414_def mozcpp_lex_415_def
    mozcpp_lex_416_def mozcpp_lex_417_def mozcpp_lex_418_def mozcpp_lex_419_def
    mozcpp_lex_420_def mozcpp_lex_421_def mozcpp_lex_422_def mozcpp_lex_423_def
    mozcpp_lex_424_def mozcpp_lex_425_def mozcpp_lex_426_def mozcpp_lex_427_def
    mozcpp_lex_428_def mozcpp_lex_429_def mozcpp_lex_430_def mozcpp_lex_431_def
    mozcpp_lex_432_def mozcpp_lex_433_def mozcpp_lex_434_def mozcpp_lex_435_def
    mozcpp_lex_436_def mozcpp_lex_437_def mozcpp_lex_438_def mozcpp_lex_439_def
    mozcpp_lex_440_def mozcpp_lex_441_def mozcpp_lex_442_def mozcpp_lex_443_def
    mozcpp_lex_444_def mozcpp_lex_445_def mozcpp_lex_446_def mozcpp_lex_447_def
    mozcpp_lex_448_def mozcpp_lex_449_def mozcpp_lex_450_def mozcpp_lex_451_def
    mozcpp_lex_452_def mozcpp_lex_453_def mozcpp_lex_454_def mozcpp_lex_455_def
    mozcpp_lex_456_def mozcpp_lex_457_def mozcpp_lex_458_def mozcpp_lex_459_def
    mozcpp_lex_460_def mozcpp_lex_461_def mozcpp_lex_462_def mozcpp_lex_463_def
    mozcpp_lex_464_def mozcpp_lex_465_def mozcpp_lex_466_def mozcpp_lex_467_def
    mozcpp_lex_468_def mozcpp_lex_469_def mozcpp_lex_470_def mozcpp_lex_471_def
    mozcpp_lex_472_def mozcpp_lex_473_def mozcpp_lex_474_def mozcpp_lex_475_def
    mozcpp_lex_476_def mozcpp_lex_477_def mozcpp_lex_478_def mozcpp_lex_479_def
    mozcpp_lex_480_def mozcpp_lex_481_def mozcpp_lex_482_def mozcpp_lex_483_def
    mozcpp_lex_484_def mozcpp_lex_485_def mozcpp_lex_486_def mozcpp_lex_487_def
    mozcpp_lex_488_def mozcpp_lex_489_def mozcpp_lex_490_def mozcpp_lex_491_def
    mozcpp_lex_492_def mozcpp_lex_493_def mozcpp_lex_494_def mozcpp_lex_495_def
    mozcpp_lex_496_def mozcpp_lex_497_def mozcpp_lex_498_def mozcpp_lex_499_def
    mozcpp_lex_500_def mozcpp_lex_501_def mozcpp_lex_502_def mozcpp_lex_503_def
    mozcpp_lex_504_def mozcpp_lex_505_def mozcpp_lex_506_def mozcpp_lex_507_def
    mozcpp_lex_508_def mozcpp_lex_509_def mozcpp_lex_510_def mozcpp_lex_511_def
    mozcpp_lex_512_def mozcpp_lex_513_def mozcpp_lex_514_def mozcpp_lex_515_def
    mozcpp_lex_516_def mozcpp_lex_517_def mozcpp_lex_518_def mozcpp_lex_519_def
    mozcpp_lex_520_def mozcpp_lex_521_def mozcpp_lex_522_def mozcpp_lex_523_def
    mozcpp_lex_524_def mozcpp_lex_525_def mozcpp_lex_526_def mozcpp_lex_527_def
    mozcpp_lex_528_def mozcpp_lex_529_def mozcpp_lex_530_def mozcpp_lex_531_def
    mozcpp_lex_532_def mozcpp_lex_533_def mozcpp_lex_534_def mozcpp_lex_535_def
    mozcpp_lex_536_def mozcpp_lex_537_def mozcpp_lex_538_def mozcpp_lex_539_def
    mozcpp_lex_540_def mozcpp_lex_541_def mozcpp_lex_542_def mozcpp_lex_543_def
    mozcpp_lex_544_def mozcpp_lex_545_def mozcpp_lex_546_def mozcpp_lex_547_def
    mozcpp_lex_548_def mozcpp_lex_549_def mozcpp_lex_550_def mozcpp_lex_551_def
    mozcpp_lex_552_def mozcpp_lex_553_def mozcpp_lex_554_def mozcpp_lex_555_def
    mozcpp_lex_556_def mozcpp_lex_557_def mozcpp_lex_558_def mozcpp_lex_559_def
    mozcpp_lex_560_def mozcpp_lex_561_def mozcpp_lex_562_def mozcpp_lex_563_def
    mozcpp_lex_564_def mozcpp_lex_565_def mozcpp_lex_566_def mozcpp_lex_567_def
    mozcpp_lex_568_def mozcpp_lex_569_def mozcpp_lex_570_def mozcpp_lex_571_def
    mozcpp_lex_572_def mozcpp_lex_573_def mozcpp_lex_574_def mozcpp_lex_575_def
    mozcpp_lex_576_def mozcpp_lex_577_def mozcpp_lex_578_def mozcpp_lex_579_def
    mozcpp_lex_580_def mozcpp_lex_581_def mozcpp_lex_582_def mozcpp_lex_583_def
    mozcpp_lex_584_def mozcpp_lex_585_def mozcpp_lex_586_def mozcpp_lex_587_def
    mozcpp_lex_588_def mozcpp_lex_589_def mozcpp_lex_590_def mozcpp_lex_591_def
    mozcpp_lex_592_def mozcpp_lex_593_def mozcpp_lex_594_def mozcpp_lex_595_def
    mozcpp_lex_596_def mozcpp_lex_597_def mozcpp_lex_598_def mozcpp_lex_599_def
    mozcpp_lex_600_def mozcpp_lex_601_def mozcpp_lex_602_def mozcpp_lex_603_def
    mozcpp_lex_604_def mozcpp_lex_605_def mozcpp_lex_606_def mozcpp_lex_607_def
    mozcpp_lex_608_def mozcpp_lex_609_def mozcpp_lex_610_def mozcpp_lex_611_def
    mozcpp_lex_612_def mozcpp_lex_613_def mozcpp_lex_614_def mozcpp_lex_615_def
    mozcpp_lex_616_def mozcpp_lex_617_def mozcpp_lex_618_def mozcpp_lex_619_def
    mozcpp_lex_620_def mozcpp_lex_621_def mozcpp_lex_622_def mozcpp_lex_623_def
    mozcpp_lex_624_def mozcpp_lex_625_def mozcpp_lex_626_def mozcpp_lex_627_def
    mozcpp_lex_628_def mozcpp_lex_629_def mozcpp_lex_630_def mozcpp_lex_631_def
    mozcpp_lex_632_def mozcpp_lex_633_def mozcpp_lex_634_def mozcpp_lex_635_def
    mozcpp_lex_636_def mozcpp_lex_637_def mozcpp_lex_638_def mozcpp_lex_639_def
    mozcpp_lex_640_def mozcpp_lex_641_def mozcpp_lex_642_def mozcpp_lex_643_def
    mozcpp_lex_644_def mozcpp_lex_645_def mozcpp_lex_646_def mozcpp_lex_647_def
    mozcpp_lex_648_def mozcpp_lex_649_def mozcpp_lex_650_def mozcpp_lex_651_def
    mozcpp_lex_652_def mozcpp_lex_653_def mozcpp_lex_654_def mozcpp_lex_655_def
    mozcpp_lex_656_def mozcpp_lex_657_def mozcpp_lex_658_def mozcpp_lex_659_def
    mozcpp_lex_660_def mozcpp_lex_661_def mozcpp_lex_662_def mozcpp_lex_663_def
    mozcpp_lex_664_def mozcpp_lex_665_def mozcpp_lex_666_def mozcpp_lex_667_def
    mozcpp_lex_668_def mozcpp_lex_669_def mozcpp_lex_670_def mozcpp_lex_671_def
    mozcpp_lex_672_def mozcpp_lex_673_def mozcpp_lex_674_def mozcpp_lex_675_def
    mozcpp_lex_676_def mozcpp_lex_677_def mozcpp_lex_678_def mozcpp_lex_679_def
    mozcpp_lex_680_def mozcpp_lex_681_def mozcpp_lex_682_def mozcpp_lex_683_def
    mozcpp_lex_684_def mozcpp_lex_685_def mozcpp_lex_686_def mozcpp_lex_687_def
    mozcpp_lex_688_def mozcpp_lex_689_def mozcpp_lex_690_def mozcpp_lex_691_def
    mozcpp_lex_692_def mozcpp_lex_693_def mozcpp_lex_694_def mozcpp_lex_695_def
    mozcpp_lex_696_def mozcpp_lex_697_def mozcpp_lex_698_def mozcpp_lex_699_def
    mozcpp_lex_700_def mozcpp_lex_701_def mozcpp_lex_702_def mozcpp_lex_703_def
    mozcpp_lex_704_def mozcpp_lex_705_def mozcpp_lex_706_def mozcpp_lex_707_def
    mozcpp_lex_708_def mozcpp_lex_709_def mozcpp_lex_710_def mozcpp_lex_711_def
    mozcpp_lex_712_def mozcpp_lex_713_def mozcpp_lex_714_def mozcpp_lex_715_def
    mozcpp_lex_716_def mozcpp_lex_717_def mozcpp_lex_718_def mozcpp_lex_719_def
    mozcpp_lex_720_def mozcpp_lex_721_def mozcpp_lex_722_def mozcpp_lex_723_def
    mozcpp_lex_724_def mozcpp_lex_725_def mozcpp_lex_726_def mozcpp_lex_727_def
    mozcpp_lex_728_def mozcpp_lex_729_def mozcpp_lex_730_def mozcpp_lex_731_def
    mozcpp_lex_732_def mozcpp_lex_733_def mozcpp_lex_734_def mozcpp_lex_735_def
    mozcpp_lex_736_def mozcpp_lex_737_def mozcpp_lex_738_def mozcpp_lex_739_def
    mozcpp_lex_740_def mozcpp_lex_741_def mozcpp_lex_742_def mozcpp_lex_743_def
    mozcpp_lex_744_def mozcpp_lex_745_def mozcpp_lex_746_def mozcpp_lex_747_def
    mozcpp_lex_748_def mozcpp_lex_749_def mozcpp_lex_750_def mozcpp_lex_751_def
    mozcpp_lex_752_def mozcpp_lex_753_def mozcpp_lex_754_def mozcpp_lex_755_def
    mozcpp_lex_756_def mozcpp_lex_757_def mozcpp_lex_758_def mozcpp_lex_759_def
    mozcpp_lex_760_def mozcpp_lex_761_def mozcpp_lex_762_def mozcpp_lex_763_def
    mozcpp_lex_764_def mozcpp_lex_765_def mozcpp_lex_766_def mozcpp_lex_767_def
    mozcpp_lex_768_def mozcpp_lex_769_def mozcpp_lex_770_def mozcpp_lex_771_def
    mozcpp_lex_772_def mozcpp_lex_773_def mozcpp_lex_774_def mozcpp_lex_775_def
    mozcpp_lex_776_def mozcpp_lex_777_def mozcpp_lex_778_def mozcpp_lex_779_def
    mozcpp_lex_780_def mozcpp_lex_781_def mozcpp_lex_782_def mozcpp_lex_783_def
    mozcpp_lex_784_def mozcpp_lex_785_def mozcpp_lex_786_def mozcpp_lex_787_def
    mozcpp_lex_788_def mozcpp_lex_789_def mozcpp_lex_790_def mozcpp_lex_791_def
    mozcpp_lex_792_def mozcpp_lex_793_def mozcpp_lex_794_def mozcpp_lex_795_def
    mozcpp_lex_796_def mozcpp_lex_797_def mozcpp_lex_798_def mozcpp_lex_799_def
    mozcpp_lex_800_def mozcpp_lex_801_def mozcpp_lex_802_def mozcpp_lex_803_def
    mozcpp_lex_804_def mozcpp_lex_805_def mozcpp_lex_806_def mozcpp_lex_807_def
    mozcpp_lex_808_def mozcpp_lex_809_def mozcpp_lex_810_def mozcpp_lex_811_def
    mozcpp_lex_812_def mozcpp_lex_813_def mozcpp_lex_814_def mozcpp_lex_815_def
    mozcpp_lex_816_def mozcpp_lex_817_def mozcpp_lex_818_def mozcpp_lex_819_def
    mozcpp_lex_820_def mozcpp_lex_821_def mozcpp_lex_822_def mozcpp_lex_823_def
    mozcpp_lex_824_def mozcpp_lex_825_def mozcpp_lex_826_def mozcpp_lex_827_def
    mozcpp_lex_828_def mozcpp_lex_829_def mozcpp_lex_830_def mozcpp_lex_831_def
    mozcpp_lex_832_def mozcpp_lex_833_def mozcpp_lex_834_def mozcpp_lex_835_def
    mozcpp_lex_836_def mozcpp_lex_837_def mozcpp_lex_838_def mozcpp_lex_839_def
    mozcpp_lex_840_def mozcpp_lex_841_def mozcpp_lex_842_def mozcpp_lex_843_def
    mozcpp_lex_844_def mozcpp_lex_845_def mozcpp_lex_846_def mozcpp_lex_847_def
    mozcpp_lex_848_def mozcpp_lex_849_def mozcpp_lex_850_def mozcpp_lex_851_def
    mozcpp_lex_852_def mozcpp_lex_853_def mozcpp_lex_854_def mozcpp_lex_855_def
    mozcpp_lex_856_def mozcpp_lex_857_def mozcpp_lex_858_def mozcpp_lex_859_def
    mozcpp_lex_860_def mozcpp_lex_861_def mozcpp_lex_862_def mozcpp_lex_863_def
    mozcpp_lex_864_def mozcpp_lex_865_def mozcpp_lex_866_def mozcpp_lex_867_def
    mozcpp_lex_868_def mozcpp_lex_869_def mozcpp_lex_870_def mozcpp_lex_871_def
    mozcpp_lex_872_def mozcpp_lex_873_def mozcpp_lex_874_def mozcpp_lex_875_def
    mozcpp_lex_876_def mozcpp_lex_877_def mozcpp_lex_878_def mozcpp_lex_879_def
    mozcpp_lex_880_def mozcpp_lex_881_def mozcpp_lex_882_def mozcpp_lex_883_def
    mozcpp_lex_884_def mozcpp_lex_885_def mozcpp_lex_886_def mozcpp_lex_887_def
    mozcpp_lex_888_def mozcpp_lex_889_def mozcpp_lex_890_def mozcpp_lex_891_def
    mozcpp_lex_892_def mozcpp_lex_893_def mozcpp_lex_894_def mozcpp_lex_895_def
    mozcpp_lex_896_def mozcpp_lex_897_def mozcpp_lex_898_def mozcpp_lex_899_def
    mozcpp_lex_900_def mozcpp_lex_901_def mozcpp_lex_902_def mozcpp_lex_903_def
    mozcpp_lex_904_def mozcpp_lex_905_def mozcpp_lex_906_def mozcpp_lex_907_def
    mozcpp_lex_908_def mozcpp_lex_909_def mozcpp_lex_910_def mozcpp_lex_911_def
    mozcpp_lex_912_def mozcpp_lex_913_def mozcpp_lex_914_def mozcpp_lex_915_def
    mozcpp_lex_916_def mozcpp_lex_917_def mozcpp_lex_918_def mozcpp_lex_919_def
    mozcpp_lex_920_def mozcpp_lex_921_def mozcpp_lex_922_def mozcpp_lex_923_def
    mozcpp_lex_924_def mozcpp_lex_925_def mozcpp_lex_926_def mozcpp_lex_927_def
    mozcpp_lex_928_def mozcpp_lex_929_def mozcpp_lex_930_def mozcpp_lex_931_def
    mozcpp_lex_932_def mozcpp_lex_933_def mozcpp_lex_934_def mozcpp_lex_935_def
    mozcpp_lex_936_def mozcpp_lex_937_def mozcpp_lex_938_def mozcpp_lex_939_def
    mozcpp_lex_940_def mozcpp_lex_941_def mozcpp_lex_942_def mozcpp_lex_943_def
    mozcpp_lex_944_def mozcpp_lex_945_def mozcpp_lex_946_def mozcpp_lex_947_def
    mozcpp_lex_948_def mozcpp_lex_949_def mozcpp_lex_950_def mozcpp_lex_951_def
    mozcpp_lex_952_def mozcpp_lex_953_def mozcpp_lex_954_def mozcpp_lex_955_def
    mozcpp_lex_956_def mozcpp_lex_957_def mozcpp_lex_958_def mozcpp_lex_959_def
    mozcpp_lex_960_def mozcpp_lex_961_def mozcpp_lex_962_def mozcpp_lex_963_def
    mozcpp_lex_964_def mozcpp_lex_965_def mozcpp_lex_966_def mozcpp_lex_967_def
    mozcpp_lex_968_def mozcpp_lex_969_def mozcpp_lex_970_def mozcpp_lex_971_def
    mozcpp_lex_972_def mozcpp_lex_973_def mozcpp_lex_974_def mozcpp_lex_975_def
    mozcpp_lex_976_def mozcpp_lex_977_def mozcpp_lex_978_def mozcpp_lex_979_def
    mozcpp_lex_980_def mozcpp_lex_981_def mozcpp_lex_982_def mozcpp_lex_983_def
    mozcpp_lex_984_def mozcpp_lex_985_def mozcpp_lex_986_def mozcpp_lex_987_def
    mozcpp_lex_988_def mozcpp_lex_989_def mozcpp_lex_990_def mozcpp_lex_991_def
    mozcpp_lex_992_def mozcpp_lex_993_def mozcpp_lex_994_def mozcpp_lex_995_def
    mozcpp_lex_996_def mozcpp_lex_997_def mozcpp_lex_998_def mozcpp_lex_999_def
    mozcpp_lex_1000_def mozcpp_lex_1001_def mozcpp_lex_1002_def mozcpp_lex_1003_def
    mozcpp_lex_1004_def mozcpp_lex_1005_def mozcpp_lex_1006_def mozcpp_lex_1007_def
    mozcpp_lex_1008_def mozcpp_lex_1009_def mozcpp_lex_1010_def mozcpp_lex_1011_def
    mozcpp_lex_1012_def mozcpp_lex_1013_def mozcpp_lex_1014_def mozcpp_lex_1015_def
    mozcpp_lex_1016_def mozcpp_lex_1017_def mozcpp_lex_1018_def mozcpp_lex_1019_def
    mozcpp_lex_1020_def mozcpp_lex_1021_def mozcpp_lex_1022_def mozcpp_lex_1023_def
    mozcpp_lex_1024_def mozcpp_lex_1025_def mozcpp_lex_1026_def mozcpp_lex_1027_def
    mozcpp_lex_1028_def mozcpp_lex_1029_def mozcpp_lex_1030_def mozcpp_lex_1031_def
    mozcpp_lex_1032_def mozcpp_lex_1033_def mozcpp_lex_1034_def mozcpp_lex_1035_def
    mozcpp_lex_1036_def mozcpp_lex_1037_def mozcpp_lex_1038_def mozcpp_lex_1039_def
    mozcpp_lex_1040_def mozcpp_lex_1041_def mozcpp_lex_1042_def mozcpp_lex_1043_def
    mozcpp_lex_1044_def mozcpp_lex_1045_def mozcpp_lex_1046_def mozcpp_lex_1047_def
    mozcpp_lex_1048_def mozcpp_lex_1049_def mozcpp_lex_1050_def mozcpp_lex_1051_def
    mozcpp_lex_1052_def mozcpp_lex_1053_def mozcpp_lex_1054_def mozcpp_lex_1055_def
    mozcpp_lex_1056_def mozcpp_lex_1057_def mozcpp_lex_1058_def mozcpp_lex_1059_def
    mozcpp_lex_1060_def mozcpp_lex_1061_def mozcpp_lex_1062_def mozcpp_lex_1063_def
    mozcpp_lex_1064_def mozcpp_lex_1065_def mozcpp_lex_1066_def mozcpp_lex_1067_def
    mozcpp_lex_1068_def mozcpp_lex_1069_def mozcpp_lex_1070_def mozcpp_lex_1071_def
    mozcpp_lex_1072_def mozcpp_lex_1073_def mozcpp_lex_1074_def mozcpp_lex_1075_def
    mozcpp_lex_1076_def mozcpp_lex_1077_def mozcpp_lex_1078_def mozcpp_lex_1079_def
    mozcpp_lex_1080_def mozcpp_lex_1081_def mozcpp_lex_1082_def mozcpp_lex_1083_def
    mozcpp_lex_1084_def mozcpp_lex_1085_def mozcpp_lex_1086_def mozcpp_lex_1087_def
    mozcpp_lex_1088_def mozcpp_lex_1089_def mozcpp_lex_1090_def mozcpp_lex_1091_def
    mozcpp_lex_1092_def mozcpp_lex_1093_def mozcpp_lex_1094_def mozcpp_lex_1095_def
    mozcpp_lex_1096_def mozcpp_lex_1097_def mozcpp_lex_1098_def mozcpp_lex_1099_def
    mozcpp_lex_1100_def mozcpp_lex_1101_def mozcpp_lex_1102_def mozcpp_lex_1103_def
    mozcpp_lex_1104_def mozcpp_lex_1105_def mozcpp_lex_1106_def mozcpp_lex_1107_def
    mozcpp_lex_1108_def mozcpp_lex_1109_def mozcpp_lex_1110_def mozcpp_lex_1111_def
    mozcpp_lex_1112_def mozcpp_lex_1113_def mozcpp_lex_1114_def mozcpp_lex_1115_def
    mozcpp_lex_1116_def mozcpp_lex_1117_def mozcpp_lex_1118_def mozcpp_lex_1119_def
    mozcpp_lex_1120_def mozcpp_lex_1121_def mozcpp_lex_1122_def mozcpp_lex_1123_def
    mozcpp_lex_1124_def mozcpp_lex_1125_def mozcpp_lex_1126_def mozcpp_lex_1127_def
    mozcpp_lex_1128_def mozcpp_lex_1129_def mozcpp_lex_1130_def mozcpp_lex_1131_def
    mozcpp_lex_1132_def mozcpp_lex_1133_def mozcpp_lex_1134_def mozcpp_lex_1135_def
    mozcpp_lex_1136_def mozcpp_lex_1137_def mozcpp_lex_1138_def mozcpp_lex_1139_def
    mozcpp_lex_1140_def mozcpp_lex_1141_def mozcpp_lex_1142_def mozcpp_lex_1143_def
    mozcpp_lex_1144_def mozcpp_lex_1145_def mozcpp_lex_1146_def mozcpp_lex_1147_def
    mozcpp_lex_1148_def mozcpp_lex_1149_def mozcpp_lex_1150_def mozcpp_lex_1151_def
    mozcpp_lex_1152_def mozcpp_lex_1153_def mozcpp_lex_1154_def mozcpp_lex_1155_def
    mozcpp_lex_1156_def mozcpp_lex_1157_def mozcpp_lex_1158_def mozcpp_lex_1159_def
    mozcpp_lex_1160_def mozcpp_lex_1161_def mozcpp_lex_1162_def mozcpp_lex_1163_def
    mozcpp_lex_1164_def mozcpp_lex_1165_def mozcpp_lex_1166_def mozcpp_lex_1167_def
    mozcpp_lex_1168_def mozcpp_lex_1169_def mozcpp_lex_1170_def mozcpp_lex_1171_def
    mozcpp_lex_1172_def mozcpp_lex_1173_def mozcpp_lex_1174_def mozcpp_lex_1175_def
    mozcpp_lex_1176_def mozcpp_lex_1177_def mozcpp_lex_1178_def mozcpp_lex_1179_def
    mozcpp_lex_1180_def mozcpp_lex_1181_def mozcpp_lex_1182_def mozcpp_lex_1183_def
    mozcpp_lex_1184_def

section \<open>The switch is closed\<close>

interpretation mozcpp_switch: case_switch mozcpp_ts_lex 1185 mozcpp_lex_cases
proof
  show "mozcpp_ts_lex s e c = (if s < 1185 then Some ((mozcpp_lex_cases ! s) e c) else None)" for s e c
    by (rule mozcpp_ts_lex_def)
  show "length mozcpp_lex_cases = 1185"
    by (simp add: mozcpp_lex_list)
  show "list_all (\<lambda>f. \<forall>e c. goto_bounded 1185 (snd (f e c))) mozcpp_lex_cases"
    unfolding mozcpp_lex_list list.pred_inject mozcpp_lex_defs snd_conv
    by (intro conjI allI TrueI goto_bounded_intros; simp)
  show "list_all (eof_stop mozcpp_lex_cases) mozcpp_lex_cases"
    by (simp add: mozcpp_lex_list mozcpp_lex_defs eof_stop_def)
qed

lemmas mozcpp_switch_auto = mozcpp_switch.next_eq mozcpp_switch.state_accepts_eq mozcpp_lex_list

end
