(* ===== verification/Mozcpp_Keywords.thy ===== *)
theory Mozcpp_Keywords
  imports Mozcpp_Lex
begin

text \<open>
  The keyword lexer of the C++ grammar, \<^verbatim>\<open>ts_lex_keywords\<close> of
  \<^verbatim>\<open>tree-sitter-mozcpp/src/parser.c\<close>, one definition per \<^verbatim>\<open>case\<close>.
  The runtime runs it on an identifier the lexer has found, to see whether it is a keyword or one of the
  macros the grammar treats as such.
\<close>

section \<open>The cases of the switch\<close>

definition mozcpp_kw_0 :: "bool \<Rightarrow> codepoint \<Rightarrow> lex_case" where
  "mozcpp_kw_0 eof la = (None,
      case ADVANCE_MAP [(CH_C, 1), (CH_F, 2), (CH_I, 3), (CH_J, 4), (CH_L, 5), (CH_M, 6), (CH_N,
        7), (CH_P, 8), (CH_Q, 9), (CH_S, 10)] la of Some st \<Rightarrow> ADVANCE st | None
        \<Rightarrow> (
      if la = CH_BACKSLASH then SKIP 11 else
      if la = CH_UNDERSCORE then ADVANCE 12 else
      if la = CH_a then ADVANCE 13 else
      if la = CH_b then ADVANCE 14 else
      if la = CH_c then ADVANCE 15 else
      if la = CH_d then ADVANCE 16 else
      if la = CH_e then ADVANCE 17 else
      if la = CH_f then ADVANCE 18 else
      if la = CH_g then ADVANCE 19 else
      if la = CH_i then ADVANCE 20 else
      if la = CH_l then ADVANCE 21 else
      if la = CH_m then ADVANCE 22 else
      if la = CH_n then ADVANCE 23 else
      if la = CH_o then ADVANCE 24 else
      if la = CH_p then ADVANCE 25 else
      if la = CH_r then ADVANCE 26 else
      if la = CH_s then ADVANCE 27 else
      if la = CH_t then ADVANCE 28 else
      if la = CH_u then ADVANCE 29 else
      if la = CH_v then ADVANCE 30 else
      if la = CH_w then ADVANCE 31 else
      if la = CH_x then ADVANCE 32 else
      if (CH_TAB \<le> la \<and> la \<le> CH_CR) \<or> la = CH_SPACE then SKIP 0 else END_STATE))"

definition mozcpp_kw_1 :: "bool \<Rightarrow> codepoint \<Rightarrow> lex_case" where
  "mozcpp_kw_1 eof la = (None,
      if la = CH_A then ADVANCE 33 else END_STATE)"

definition mozcpp_kw_2 :: "bool \<Rightarrow> codepoint \<Rightarrow> lex_case" where
  "mozcpp_kw_2 eof la = (None,
      if la = CH_O then ADVANCE 34 else END_STATE)"

definition mozcpp_kw_3 :: "bool \<Rightarrow> codepoint \<Rightarrow> lex_case" where
  "mozcpp_kw_3 eof la = (None,
      if la = CH_D then ADVANCE 35 else END_STATE)"

definition mozcpp_kw_4 :: "bool \<Rightarrow> codepoint \<Rightarrow> lex_case" where
  "mozcpp_kw_4 eof la = (None,
      if la = CH_S then ADVANCE 36 else END_STATE)"

definition mozcpp_kw_5 :: "bool \<Rightarrow> codepoint \<Rightarrow> lex_case" where
  "mozcpp_kw_5 eof la = (None,
      if la = CH_S then ADVANCE 37 else END_STATE)"

definition mozcpp_kw_6 :: "bool \<Rightarrow> codepoint \<Rightarrow> lex_case" where
  "mozcpp_kw_6 eof la = (None,
      if la = CH_O then ADVANCE 38 else END_STATE)"

definition mozcpp_kw_7 :: "bool \<Rightarrow> codepoint \<Rightarrow> lex_case" where
  "mozcpp_kw_7 eof la = (None,
      if la = CH_U then ADVANCE 39 else END_STATE)"

definition mozcpp_kw_8 :: "bool \<Rightarrow> codepoint \<Rightarrow> lex_case" where
  "mozcpp_kw_8 eof la = (None,
      if la = CH_S then ADVANCE 40 else END_STATE)"

definition mozcpp_kw_9 :: "bool \<Rightarrow> codepoint \<Rightarrow> lex_case" where
  "mozcpp_kw_9 eof la = (None,
      if la = CH_M then ADVANCE 41 else END_STATE)"

definition mozcpp_kw_10 :: "bool \<Rightarrow> codepoint \<Rightarrow> lex_case" where
  "mozcpp_kw_10 eof la = (None,
      if la = CH_D then ADVANCE 42 else END_STATE)"

definition mozcpp_kw_11 :: "bool \<Rightarrow> codepoint \<Rightarrow> lex_case" where
  "mozcpp_kw_11 eof la = (None,
      if la = CH_LF then SKIP 0 else
      if la = CH_CR then SKIP 43 else END_STATE)"

definition mozcpp_kw_12 :: "bool \<Rightarrow> codepoint \<Rightarrow> lex_case" where
  "mozcpp_kw_12 eof la = (None,
      if la = CH_A then ADVANCE 44 else
      if la = CH_G then ADVANCE 45 else
      if la = CH_N then ADVANCE 46 else
      if la = CH_UNDERSCORE then ADVANCE 47 else
      if la = CH_a then ADVANCE 48 else
      if la = CH_u then ADVANCE 49 else END_STATE)"

definition mozcpp_kw_13 :: "bool \<Rightarrow> codepoint \<Rightarrow> lex_case" where
  "mozcpp_kw_13 eof la = (None,
      if la = CH_l then ADVANCE 50 else
      if la = CH_n then ADVANCE 51 else
      if la = CH_s then ADVANCE 52 else
      if la = CH_u then ADVANCE 53 else END_STATE)"

definition mozcpp_kw_14 :: "bool \<Rightarrow> codepoint \<Rightarrow> lex_case" where
  "mozcpp_kw_14 eof la = (None,
      if la = CH_i then ADVANCE 54 else
      if la = CH_r then ADVANCE 55 else END_STATE)"

definition mozcpp_kw_15 :: "bool \<Rightarrow> codepoint \<Rightarrow> lex_case" where
  "mozcpp_kw_15 eof la = (None,
      if la = CH_a then ADVANCE 56 else
      if la = CH_l then ADVANCE 57 else
      if la = CH_o then ADVANCE 58 else END_STATE)"

definition mozcpp_kw_16 :: "bool \<Rightarrow> codepoint \<Rightarrow> lex_case" where
  "mozcpp_kw_16 eof la = (None,
      if la = CH_e then ADVANCE 59 else
      if la = CH_o then ADVANCE 60 else END_STATE)"

definition mozcpp_kw_17 :: "bool \<Rightarrow> codepoint \<Rightarrow> lex_case" where
  "mozcpp_kw_17 eof la = (None,
      if la = CH_l then ADVANCE 61 else
      if la = CH_n then ADVANCE 62 else
      if la = CH_x then ADVANCE 63 else END_STATE)"

definition mozcpp_kw_18 :: "bool \<Rightarrow> codepoint \<Rightarrow> lex_case" where
  "mozcpp_kw_18 eof la = (None,
      if la = CH_i then ADVANCE 64 else
      if la = CH_o then ADVANCE 65 else
      if la = CH_r then ADVANCE 66 else END_STATE)"

definition mozcpp_kw_19 :: "bool \<Rightarrow> codepoint \<Rightarrow> lex_case" where
  "mozcpp_kw_19 eof la = (None,
      if la = CH_o then ADVANCE 67 else END_STATE)"

definition mozcpp_kw_20 :: "bool \<Rightarrow> codepoint \<Rightarrow> lex_case" where
  "mozcpp_kw_20 eof la = (None,
      if la = CH_f then ADVANCE 68 else
      if la = CH_n then ADVANCE 69 else END_STATE)"

definition mozcpp_kw_21 :: "bool \<Rightarrow> codepoint \<Rightarrow> lex_case" where
  "mozcpp_kw_21 eof la = (None,
      if la = CH_o then ADVANCE 70 else END_STATE)"

definition mozcpp_kw_22 :: "bool \<Rightarrow> codepoint \<Rightarrow> lex_case" where
  "mozcpp_kw_22 eof la = (None,
      if la = CH_u then ADVANCE 71 else END_STATE)"

definition mozcpp_kw_23 :: "bool \<Rightarrow> codepoint \<Rightarrow> lex_case" where
  "mozcpp_kw_23 eof la = (None,
      if la = CH_a then ADVANCE 72 else
      if la = CH_e then ADVANCE 73 else
      if la = CH_o then ADVANCE 74 else
      if la = CH_u then ADVANCE 75 else END_STATE)"

definition mozcpp_kw_24 :: "bool \<Rightarrow> codepoint \<Rightarrow> lex_case" where
  "mozcpp_kw_24 eof la = (None,
      if la = CH_f then ADVANCE 76 else
      if la = CH_p then ADVANCE 77 else
      if la = CH_r then ADVANCE 78 else
      if la = CH_v then ADVANCE 79 else END_STATE)"

definition mozcpp_kw_25 :: "bool \<Rightarrow> codepoint \<Rightarrow> lex_case" where
  "mozcpp_kw_25 eof la = (None,
      if la = CH_r then ADVANCE 80 else
      if la = CH_u then ADVANCE 81 else END_STATE)"

definition mozcpp_kw_26 :: "bool \<Rightarrow> codepoint \<Rightarrow> lex_case" where
  "mozcpp_kw_26 eof la = (None,
      if la = CH_e then ADVANCE 82 else END_STATE)"

definition mozcpp_kw_27 :: "bool \<Rightarrow> codepoint \<Rightarrow> lex_case" where
  "mozcpp_kw_27 eof la = (None,
      if la = CH_h then ADVANCE 83 else
      if la = CH_i then ADVANCE 84 else
      if la = CH_t then ADVANCE 85 else
      if la = CH_w then ADVANCE 86 else END_STATE)"

definition mozcpp_kw_28 :: "bool \<Rightarrow> codepoint \<Rightarrow> lex_case" where
  "mozcpp_kw_28 eof la = (None,
      if la = CH_e then ADVANCE 87 else
      if la = CH_h then ADVANCE 88 else
      if la = CH_r then ADVANCE 89 else
      if la = CH_y then ADVANCE 90 else END_STATE)"

definition mozcpp_kw_29 :: "bool \<Rightarrow> codepoint \<Rightarrow> lex_case" where
  "mozcpp_kw_29 eof la = (None,
      if la = CH_n then ADVANCE 91 else
      if la = CH_s then ADVANCE 92 else END_STATE)"

definition mozcpp_kw_30 :: "bool \<Rightarrow> codepoint \<Rightarrow> lex_case" where
  "mozcpp_kw_30 eof la = (None,
      if la = CH_i then ADVANCE 93 else
      if la = CH_o then ADVANCE 94 else END_STATE)"

definition mozcpp_kw_31 :: "bool \<Rightarrow> codepoint \<Rightarrow> lex_case" where
  "mozcpp_kw_31 eof la = (None,
      if la = CH_h then ADVANCE 95 else END_STATE)"

definition mozcpp_kw_32 :: "bool \<Rightarrow> codepoint \<Rightarrow> lex_case" where
  "mozcpp_kw_32 eof la = (None,
      if la = CH_o then ADVANCE 96 else END_STATE)"

definition mozcpp_kw_33 :: "bool \<Rightarrow> codepoint \<Rightarrow> lex_case" where
  "mozcpp_kw_33 eof la = (None,
      if la = CH_C then ADVANCE 97 else END_STATE)"

definition mozcpp_kw_34 :: "bool \<Rightarrow> codepoint \<Rightarrow> lex_case" where
  "mozcpp_kw_34 eof la = (None,
      if la = CH_R then ADVANCE 98 else END_STATE)"

definition mozcpp_kw_35 :: "bool \<Rightarrow> codepoint \<Rightarrow> lex_case" where
  "mozcpp_kw_35 eof la = (None,
      if la = CH_B then ADVANCE 99 else END_STATE)"

definition mozcpp_kw_36 :: "bool \<Rightarrow> codepoint \<Rightarrow> lex_case" where
  "mozcpp_kw_36 eof la = (None,
      if la = CH_UNDERSCORE then ADVANCE 100 else END_STATE)"

definition mozcpp_kw_37 :: "bool \<Rightarrow> codepoint \<Rightarrow> lex_case" where
  "mozcpp_kw_37 eof la = (None,
      if la = CH_UNDERSCORE then ADVANCE 101 else END_STATE)"

definition mozcpp_kw_38 :: "bool \<Rightarrow> codepoint \<Rightarrow> lex_case" where
  "mozcpp_kw_38 eof la = (None,
      if la = CH_Z then ADVANCE 102 else END_STATE)"

definition mozcpp_kw_39 :: "bool \<Rightarrow> codepoint \<Rightarrow> lex_case" where
  "mozcpp_kw_39 eof la = (None,
      if la = CH_L then ADVANCE 103 else END_STATE)"

definition mozcpp_kw_40 :: "bool \<Rightarrow> codepoint \<Rightarrow> lex_case" where
  "mozcpp_kw_40 eof la = (None,
      if la = CH_UNDERSCORE then ADVANCE 104 else END_STATE)"

definition mozcpp_kw_41 :: "bool \<Rightarrow> codepoint \<Rightarrow> lex_case" where
  "mozcpp_kw_41 eof la = (None,
      if la = CH_UNDERSCORE then ADVANCE 105 else END_STATE)"

definition mozcpp_kw_42 :: "bool \<Rightarrow> codepoint \<Rightarrow> lex_case" where
  "mozcpp_kw_42 eof la = (None,
      if la = CH_B then ADVANCE 106 else END_STATE)"

definition mozcpp_kw_43 :: "bool \<Rightarrow> codepoint \<Rightarrow> lex_case" where
  "mozcpp_kw_43 eof la = (None,
      if la = CH_LF then SKIP 0 else END_STATE)"

definition mozcpp_kw_44 :: "bool \<Rightarrow> codepoint \<Rightarrow> lex_case" where
  "mozcpp_kw_44 eof la = (None,
      if la = CH_l then ADVANCE 107 else
      if la = CH_t then ADVANCE 108 else END_STATE)"

definition mozcpp_kw_45 :: "bool \<Rightarrow> codepoint \<Rightarrow> lex_case" where
  "mozcpp_kw_45 eof la = (None,
      if la = CH_e then ADVANCE 109 else END_STATE)"

definition mozcpp_kw_46 :: "bool \<Rightarrow> codepoint \<Rightarrow> lex_case" where
  "mozcpp_kw_46 eof la = (None,
      if la = CH_o then ADVANCE 110 else END_STATE)"

definition mozcpp_kw_47 :: "bool \<Rightarrow> codepoint \<Rightarrow> lex_case" where
  "mozcpp_kw_47 eof la = (None,
      case ADVANCE_MAP [(CH_a, 111), (CH_b, 112), (CH_c, 113), (CH_d, 114), (CH_e, 115), (CH_f,
        116), (CH_i, 117), (CH_l, 118), (CH_r, 119), (CH_s, 120), (CH_t, 121), (CH_u, 122),
        (CH_v, 123)] la of Some st \<Rightarrow> ADVANCE st | None \<Rightarrow> ( END_STATE))"

definition mozcpp_kw_48 :: "bool \<Rightarrow> codepoint \<Rightarrow> lex_case" where
  "mozcpp_kw_48 eof la = (None,
      if la = CH_l then ADVANCE 124 else END_STATE)"

definition mozcpp_kw_49 :: "bool \<Rightarrow> codepoint \<Rightarrow> lex_case" where
  "mozcpp_kw_49 eof la = (None,
      if la = CH_n then ADVANCE 125 else END_STATE)"

definition mozcpp_kw_50 :: "bool \<Rightarrow> codepoint \<Rightarrow> lex_case" where
  "mozcpp_kw_50 eof la = (None,
      if la = CH_i then ADVANCE 126 else END_STATE)"

definition mozcpp_kw_51 :: "bool \<Rightarrow> codepoint \<Rightarrow> lex_case" where
  "mozcpp_kw_51 eof la = (None,
      if la = CH_d then ADVANCE 127 else END_STATE)"

definition mozcpp_kw_52 :: "bool \<Rightarrow> codepoint \<Rightarrow> lex_case" where
  "mozcpp_kw_52 eof la = (None,
      if la = CH_m then ADVANCE 128 else END_STATE)"

definition mozcpp_kw_53 :: "bool \<Rightarrow> codepoint \<Rightarrow> lex_case" where
  "mozcpp_kw_53 eof la = (None,
      if la = CH_t then ADVANCE 129 else END_STATE)"

definition mozcpp_kw_54 :: "bool \<Rightarrow> codepoint \<Rightarrow> lex_case" where
  "mozcpp_kw_54 eof la = (None,
      if la = CH_t then ADVANCE 130 else END_STATE)"

definition mozcpp_kw_55 :: "bool \<Rightarrow> codepoint \<Rightarrow> lex_case" where
  "mozcpp_kw_55 eof la = (None,
      if la = CH_e then ADVANCE 131 else END_STATE)"

definition mozcpp_kw_56 :: "bool \<Rightarrow> codepoint \<Rightarrow> lex_case" where
  "mozcpp_kw_56 eof la = (None,
      if la = CH_s then ADVANCE 132 else
      if la = CH_t then ADVANCE 133 else END_STATE)"

definition mozcpp_kw_57 :: "bool \<Rightarrow> codepoint \<Rightarrow> lex_case" where
  "mozcpp_kw_57 eof la = (None,
      if la = CH_a then ADVANCE 134 else END_STATE)"

definition mozcpp_kw_58 :: "bool \<Rightarrow> codepoint \<Rightarrow> lex_case" where
  "mozcpp_kw_58 eof la = (None,
      if la = CH_UNDERSCORE then ADVANCE 135 else
      if la = CH_m then ADVANCE 136 else
      if la = CH_n then ADVANCE 137 else END_STATE)"

definition mozcpp_kw_59 :: "bool \<Rightarrow> codepoint \<Rightarrow> lex_case" where
  "mozcpp_kw_59 eof la = (None,
      if la = CH_c then ADVANCE 138 else
      if la = CH_f then ADVANCE 139 else
      if la = CH_l then ADVANCE 140 else END_STATE)"

definition mozcpp_kw_60 :: "bool \<Rightarrow> codepoint \<Rightarrow> lex_case" where
  "mozcpp_kw_60 eof la = (Some mozcpp_anon_sym_do, END_STATE)"

definition mozcpp_kw_61 :: "bool \<Rightarrow> codepoint \<Rightarrow> lex_case" where
  "mozcpp_kw_61 eof la = (None,
      if la = CH_s then ADVANCE 141 else END_STATE)"

definition mozcpp_kw_62 :: "bool \<Rightarrow> codepoint \<Rightarrow> lex_case" where
  "mozcpp_kw_62 eof la = (None,
      if la = CH_u then ADVANCE 142 else END_STATE)"

definition mozcpp_kw_63 :: "bool \<Rightarrow> codepoint \<Rightarrow> lex_case" where
  "mozcpp_kw_63 eof la = (None,
      if la = CH_p then ADVANCE 143 else
      if la = CH_t then ADVANCE 144 else END_STATE)"

definition mozcpp_kw_64 :: "bool \<Rightarrow> codepoint \<Rightarrow> lex_case" where
  "mozcpp_kw_64 eof la = (None,
      if la = CH_n then ADVANCE 145 else END_STATE)"

definition mozcpp_kw_65 :: "bool \<Rightarrow> codepoint \<Rightarrow> lex_case" where
  "mozcpp_kw_65 eof la = (None,
      if la = CH_r then ADVANCE 146 else END_STATE)"

definition mozcpp_kw_66 :: "bool \<Rightarrow> codepoint \<Rightarrow> lex_case" where
  "mozcpp_kw_66 eof la = (None,
      if la = CH_i then ADVANCE 147 else END_STATE)"

definition mozcpp_kw_67 :: "bool \<Rightarrow> codepoint \<Rightarrow> lex_case" where
  "mozcpp_kw_67 eof la = (None,
      if la = CH_t then ADVANCE 148 else END_STATE)"

definition mozcpp_kw_68 :: "bool \<Rightarrow> codepoint \<Rightarrow> lex_case" where
  "mozcpp_kw_68 eof la = (Some mozcpp_anon_sym_if, END_STATE)"

definition mozcpp_kw_69 :: "bool \<Rightarrow> codepoint \<Rightarrow> lex_case" where
  "mozcpp_kw_69 eof la = (None,
      if la = CH_l then ADVANCE 149 else END_STATE)"

definition mozcpp_kw_70 :: "bool \<Rightarrow> codepoint \<Rightarrow> lex_case" where
  "mozcpp_kw_70 eof la = (None,
      if la = CH_n then ADVANCE 150 else END_STATE)"

definition mozcpp_kw_71 :: "bool \<Rightarrow> codepoint \<Rightarrow> lex_case" where
  "mozcpp_kw_71 eof la = (None,
      if la = CH_t then ADVANCE 151 else END_STATE)"

definition mozcpp_kw_72 :: "bool \<Rightarrow> codepoint \<Rightarrow> lex_case" where
  "mozcpp_kw_72 eof la = (None,
      if la = CH_m then ADVANCE 152 else END_STATE)"

definition mozcpp_kw_73 :: "bool \<Rightarrow> codepoint \<Rightarrow> lex_case" where
  "mozcpp_kw_73 eof la = (None,
      if la = CH_w then ADVANCE 153 else END_STATE)"

definition mozcpp_kw_74 :: "bool \<Rightarrow> codepoint \<Rightarrow> lex_case" where
  "mozcpp_kw_74 eof la = (None,
      if la = CH_e then ADVANCE 154 else
      if la = CH_r then ADVANCE 155 else
      if la = CH_t then ADVANCE 156 else END_STATE)"

definition mozcpp_kw_75 :: "bool \<Rightarrow> codepoint \<Rightarrow> lex_case" where
  "mozcpp_kw_75 eof la = (None,
      if la = CH_l then ADVANCE 157 else END_STATE)"

definition mozcpp_kw_76 :: "bool \<Rightarrow> codepoint \<Rightarrow> lex_case" where
  "mozcpp_kw_76 eof la = (None,
      if la = CH_f then ADVANCE 158 else END_STATE)"

definition mozcpp_kw_77 :: "bool \<Rightarrow> codepoint \<Rightarrow> lex_case" where
  "mozcpp_kw_77 eof la = (None,
      if la = CH_e then ADVANCE 159 else END_STATE)"

definition mozcpp_kw_78 :: "bool \<Rightarrow> codepoint \<Rightarrow> lex_case" where
  "mozcpp_kw_78 eof la = (Some mozcpp_anon_sym_or,
      if la = CH_UNDERSCORE then ADVANCE 160 else END_STATE)"

definition mozcpp_kw_79 :: "bool \<Rightarrow> codepoint \<Rightarrow> lex_case" where
  "mozcpp_kw_79 eof la = (None,
      if la = CH_e then ADVANCE 161 else END_STATE)"

definition mozcpp_kw_80 :: "bool \<Rightarrow> codepoint \<Rightarrow> lex_case" where
  "mozcpp_kw_80 eof la = (None,
      if la = CH_i then ADVANCE 162 else
      if la = CH_o then ADVANCE 163 else END_STATE)"

definition mozcpp_kw_81 :: "bool \<Rightarrow> codepoint \<Rightarrow> lex_case" where
  "mozcpp_kw_81 eof la = (None,
      if la = CH_b then ADVANCE 164 else END_STATE)"

definition mozcpp_kw_82 :: "bool \<Rightarrow> codepoint \<Rightarrow> lex_case" where
  "mozcpp_kw_82 eof la = (None,
      if la = CH_g then ADVANCE 165 else
      if la = CH_q then ADVANCE 166 else
      if la = CH_s then ADVANCE 167 else
      if la = CH_t then ADVANCE 168 else END_STATE)"

definition mozcpp_kw_83 :: "bool \<Rightarrow> codepoint \<Rightarrow> lex_case" where
  "mozcpp_kw_83 eof la = (None,
      if la = CH_o then ADVANCE 169 else END_STATE)"

definition mozcpp_kw_84 :: "bool \<Rightarrow> codepoint \<Rightarrow> lex_case" where
  "mozcpp_kw_84 eof la = (None,
      if la = CH_g then ADVANCE 170 else
      if la = CH_z then ADVANCE 171 else END_STATE)"

definition mozcpp_kw_85 :: "bool \<Rightarrow> codepoint \<Rightarrow> lex_case" where
  "mozcpp_kw_85 eof la = (None,
      if la = CH_a then ADVANCE 172 else
      if la = CH_r then ADVANCE 173 else END_STATE)"

definition mozcpp_kw_86 :: "bool \<Rightarrow> codepoint \<Rightarrow> lex_case" where
  "mozcpp_kw_86 eof la = (None,
      if la = CH_i then ADVANCE 174 else END_STATE)"

definition mozcpp_kw_87 :: "bool \<Rightarrow> codepoint \<Rightarrow> lex_case" where
  "mozcpp_kw_87 eof la = (None,
      if la = CH_m then ADVANCE 175 else END_STATE)"

definition mozcpp_kw_88 :: "bool \<Rightarrow> codepoint \<Rightarrow> lex_case" where
  "mozcpp_kw_88 eof la = (None,
      if la = CH_i then ADVANCE 176 else
      if la = CH_r then ADVANCE 177 else END_STATE)"

definition mozcpp_kw_89 :: "bool \<Rightarrow> codepoint \<Rightarrow> lex_case" where
  "mozcpp_kw_89 eof la = (None,
      if la = CH_y then ADVANCE 178 else END_STATE)"

definition mozcpp_kw_90 :: "bool \<Rightarrow> codepoint \<Rightarrow> lex_case" where
  "mozcpp_kw_90 eof la = (None,
      if la = CH_p then ADVANCE 179 else END_STATE)"

definition mozcpp_kw_91 :: "bool \<Rightarrow> codepoint \<Rightarrow> lex_case" where
  "mozcpp_kw_91 eof la = (None,
      if la = CH_i then ADVANCE 180 else
      if la = CH_s then ADVANCE 181 else END_STATE)"

definition mozcpp_kw_92 :: "bool \<Rightarrow> codepoint \<Rightarrow> lex_case" where
  "mozcpp_kw_92 eof la = (None,
      if la = CH_i then ADVANCE 182 else END_STATE)"

definition mozcpp_kw_93 :: "bool \<Rightarrow> codepoint \<Rightarrow> lex_case" where
  "mozcpp_kw_93 eof la = (None,
      if la = CH_r then ADVANCE 183 else END_STATE)"

definition mozcpp_kw_94 :: "bool \<Rightarrow> codepoint \<Rightarrow> lex_case" where
  "mozcpp_kw_94 eof la = (None,
      if la = CH_l then ADVANCE 184 else END_STATE)"

definition mozcpp_kw_95 :: "bool \<Rightarrow> codepoint \<Rightarrow> lex_case" where
  "mozcpp_kw_95 eof la = (None,
      if la = CH_i then ADVANCE 185 else END_STATE)"

definition mozcpp_kw_96 :: "bool \<Rightarrow> codepoint \<Rightarrow> lex_case" where
  "mozcpp_kw_96 eof la = (None,
      if la = CH_r then ADVANCE 186 else END_STATE)"

definition mozcpp_kw_97 :: "bool \<Rightarrow> codepoint \<Rightarrow> lex_case" where
  "mozcpp_kw_97 eof la = (None,
      if la = CH_H then ADVANCE 187 else END_STATE)"

definition mozcpp_kw_98 :: "bool \<Rightarrow> codepoint \<Rightarrow> lex_case" where
  "mozcpp_kw_98 eof la = (None,
      if la = CH_W then ADVANCE 188 else END_STATE)"

definition mozcpp_kw_99 :: "bool \<Rightarrow> codepoint \<Rightarrow> lex_case" where
  "mozcpp_kw_99 eof la = (None,
      if la = CH_UNDERSCORE then ADVANCE 189 else END_STATE)"

definition mozcpp_kw_100 :: "bool \<Rightarrow> codepoint \<Rightarrow> lex_case" where
  "mozcpp_kw_100 eof la = (None,
      if la = CH_P then ADVANCE 190 else END_STATE)"

definition mozcpp_kw_101 :: "bool \<Rightarrow> codepoint \<Rightarrow> lex_case" where
  "mozcpp_kw_101 eof la = (None,
      if la = CH_T then ADVANCE 191 else END_STATE)"

definition mozcpp_kw_102 :: "bool \<Rightarrow> codepoint \<Rightarrow> lex_case" where
  "mozcpp_kw_102 eof la = (None,
      if la = CH_UNDERSCORE then ADVANCE 192 else END_STATE)"

definition mozcpp_kw_103 :: "bool \<Rightarrow> codepoint \<Rightarrow> lex_case" where
  "mozcpp_kw_103 eof la = (None,
      if la = CH_L then ADVANCE 193 else END_STATE)"

definition mozcpp_kw_104 :: "bool \<Rightarrow> codepoint \<Rightarrow> lex_case" where
  "mozcpp_kw_104 eof la = (None,
      if la = CH_G then ADVANCE 194 else END_STATE)"

definition mozcpp_kw_105 :: "bool \<Rightarrow> codepoint \<Rightarrow> lex_case" where
  "mozcpp_kw_105 eof la = (None,
      if la = CH_N then ADVANCE 195 else
      if la = CH_T then ADVANCE 196 else
      if la = CH_W then ADVANCE 197 else END_STATE)"

definition mozcpp_kw_106 :: "bool \<Rightarrow> codepoint \<Rightarrow> lex_case" where
  "mozcpp_kw_106 eof la = (None,
      if la = CH_UNDERSCORE then ADVANCE 198 else END_STATE)"

definition mozcpp_kw_107 :: "bool \<Rightarrow> codepoint \<Rightarrow> lex_case" where
  "mozcpp_kw_107 eof la = (None,
      if la = CH_i then ADVANCE 199 else END_STATE)"

definition mozcpp_kw_108 :: "bool \<Rightarrow> codepoint \<Rightarrow> lex_case" where
  "mozcpp_kw_108 eof la = (None,
      if la = CH_o then ADVANCE 200 else END_STATE)"

definition mozcpp_kw_109 :: "bool \<Rightarrow> codepoint \<Rightarrow> lex_case" where
  "mozcpp_kw_109 eof la = (None,
      if la = CH_n then ADVANCE 201 else END_STATE)"

definition mozcpp_kw_110 :: "bool \<Rightarrow> codepoint \<Rightarrow> lex_case" where
  "mozcpp_kw_110 eof la = (None,
      if la = CH_n then ADVANCE 202 else
      if la = CH_r then ADVANCE 203 else END_STATE)"

definition mozcpp_kw_111 :: "bool \<Rightarrow> codepoint \<Rightarrow> lex_case" where
  "mozcpp_kw_111 eof la = (None,
      if la = CH_l then ADVANCE 204 else
      if la = CH_s then ADVANCE 205 else
      if la = CH_t then ADVANCE 206 else END_STATE)"

definition mozcpp_kw_112 :: "bool \<Rightarrow> codepoint \<Rightarrow> lex_case" where
  "mozcpp_kw_112 eof la = (None,
      if la = CH_a then ADVANCE 207 else END_STATE)"

definition mozcpp_kw_113 :: "bool \<Rightarrow> codepoint \<Rightarrow> lex_case" where
  "mozcpp_kw_113 eof la = (None,
      if la = CH_d then ADVANCE 208 else
      if la = CH_l then ADVANCE 209 else END_STATE)"

definition mozcpp_kw_114 :: "bool \<Rightarrow> codepoint \<Rightarrow> lex_case" where
  "mozcpp_kw_114 eof la = (None,
      if la = CH_e then ADVANCE 210 else END_STATE)"

definition mozcpp_kw_115 :: "bool \<Rightarrow> codepoint \<Rightarrow> lex_case" where
  "mozcpp_kw_115 eof la = (None,
      if la = CH_x then ADVANCE 211 else END_STATE)"

definition mozcpp_kw_116 :: "bool \<Rightarrow> codepoint \<Rightarrow> lex_case" where
  "mozcpp_kw_116 eof la = (None,
      if la = CH_a then ADVANCE 212 else
      if la = CH_i then ADVANCE 213 else
      if la = CH_o then ADVANCE 214 else END_STATE)"

definition mozcpp_kw_117 :: "bool \<Rightarrow> codepoint \<Rightarrow> lex_case" where
  "mozcpp_kw_117 eof la = (None,
      if la = CH_n then ADVANCE 215 else END_STATE)"

definition mozcpp_kw_118 :: "bool \<Rightarrow> codepoint \<Rightarrow> lex_case" where
  "mozcpp_kw_118 eof la = (None,
      if la = CH_e then ADVANCE 216 else END_STATE)"

definition mozcpp_kw_119 :: "bool \<Rightarrow> codepoint \<Rightarrow> lex_case" where
  "mozcpp_kw_119 eof la = (None,
      if la = CH_e then ADVANCE 217 else END_STATE)"

definition mozcpp_kw_120 :: "bool \<Rightarrow> codepoint \<Rightarrow> lex_case" where
  "mozcpp_kw_120 eof la = (None,
      if la = CH_p then ADVANCE 218 else
      if la = CH_t then ADVANCE 219 else END_STATE)"

definition mozcpp_kw_121 :: "bool \<Rightarrow> codepoint \<Rightarrow> lex_case" where
  "mozcpp_kw_121 eof la = (None,
      if la = CH_h then ADVANCE 220 else
      if la = CH_r then ADVANCE 221 else END_STATE)"

definition mozcpp_kw_122 :: "bool \<Rightarrow> codepoint \<Rightarrow> lex_case" where
  "mozcpp_kw_122 eof la = (None,
      if la = CH_n then ADVANCE 222 else
      if la = CH_p then ADVANCE 223 else END_STATE)"

definition mozcpp_kw_123 :: "bool \<Rightarrow> codepoint \<Rightarrow> lex_case" where
  "mozcpp_kw_123 eof la = (None,
      if la = CH_e then ADVANCE 224 else
      if la = CH_o then ADVANCE 225 else END_STATE)"

definition mozcpp_kw_124 :: "bool \<Rightarrow> codepoint \<Rightarrow> lex_case" where
  "mozcpp_kw_124 eof la = (None,
      if la = CH_i then ADVANCE 226 else END_STATE)"

definition mozcpp_kw_125 :: "bool \<Rightarrow> codepoint \<Rightarrow> lex_case" where
  "mozcpp_kw_125 eof la = (None,
      if la = CH_a then ADVANCE 227 else END_STATE)"

definition mozcpp_kw_126 :: "bool \<Rightarrow> codepoint \<Rightarrow> lex_case" where
  "mozcpp_kw_126 eof la = (None,
      if la = CH_g then ADVANCE 228 else END_STATE)"

definition mozcpp_kw_127 :: "bool \<Rightarrow> codepoint \<Rightarrow> lex_case" where
  "mozcpp_kw_127 eof la = (Some mozcpp_anon_sym_and,
      if la = CH_UNDERSCORE then ADVANCE 229 else END_STATE)"

definition mozcpp_kw_128 :: "bool \<Rightarrow> codepoint \<Rightarrow> lex_case" where
  "mozcpp_kw_128 eof la = (Some mozcpp_anon_sym_asm, END_STATE)"

definition mozcpp_kw_129 :: "bool \<Rightarrow> codepoint \<Rightarrow> lex_case" where
  "mozcpp_kw_129 eof la = (None,
      if la = CH_o then ADVANCE 230 else END_STATE)"

definition mozcpp_kw_130 :: "bool \<Rightarrow> codepoint \<Rightarrow> lex_case" where
  "mozcpp_kw_130 eof la = (None,
      if la = CH_a then ADVANCE 231 else
      if la = CH_o then ADVANCE 232 else END_STATE)"

definition mozcpp_kw_131 :: "bool \<Rightarrow> codepoint \<Rightarrow> lex_case" where
  "mozcpp_kw_131 eof la = (None,
      if la = CH_a then ADVANCE 233 else END_STATE)"

definition mozcpp_kw_132 :: "bool \<Rightarrow> codepoint \<Rightarrow> lex_case" where
  "mozcpp_kw_132 eof la = (None,
      if la = CH_e then ADVANCE 234 else END_STATE)"

definition mozcpp_kw_133 :: "bool \<Rightarrow> codepoint \<Rightarrow> lex_case" where
  "mozcpp_kw_133 eof la = (None,
      if la = CH_c then ADVANCE 235 else END_STATE)"

definition mozcpp_kw_134 :: "bool \<Rightarrow> codepoint \<Rightarrow> lex_case" where
  "mozcpp_kw_134 eof la = (None,
      if la = CH_s then ADVANCE 236 else END_STATE)"

definition mozcpp_kw_135 :: "bool \<Rightarrow> codepoint \<Rightarrow> lex_case" where
  "mozcpp_kw_135 eof la = (None,
      if la = CH_a then ADVANCE 237 else
      if la = CH_r then ADVANCE 238 else
      if la = CH_y then ADVANCE 239 else END_STATE)"

definition mozcpp_kw_136 :: "bool \<Rightarrow> codepoint \<Rightarrow> lex_case" where
  "mozcpp_kw_136 eof la = (None,
      if la = CH_p then ADVANCE 240 else END_STATE)"

definition mozcpp_kw_137 :: "bool \<Rightarrow> codepoint \<Rightarrow> lex_case" where
  "mozcpp_kw_137 eof la = (None,
      if la = CH_c then ADVANCE 241 else
      if la = CH_s then ADVANCE 242 else
      if la = CH_t then ADVANCE 243 else END_STATE)"

definition mozcpp_kw_138 :: "bool \<Rightarrow> codepoint \<Rightarrow> lex_case" where
  "mozcpp_kw_138 eof la = (None,
      if la = CH_l then ADVANCE 244 else END_STATE)"

definition mozcpp_kw_139 :: "bool \<Rightarrow> codepoint \<Rightarrow> lex_case" where
  "mozcpp_kw_139 eof la = (None,
      if la = CH_a then ADVANCE 245 else
      if la = CH_i then ADVANCE 246 else END_STATE)"

definition mozcpp_kw_140 :: "bool \<Rightarrow> codepoint \<Rightarrow> lex_case" where
  "mozcpp_kw_140 eof la = (None,
      if la = CH_e then ADVANCE 247 else END_STATE)"

definition mozcpp_kw_141 :: "bool \<Rightarrow> codepoint \<Rightarrow> lex_case" where
  "mozcpp_kw_141 eof la = (None,
      if la = CH_e then ADVANCE 248 else END_STATE)"

definition mozcpp_kw_142 :: "bool \<Rightarrow> codepoint \<Rightarrow> lex_case" where
  "mozcpp_kw_142 eof la = (None,
      if la = CH_m then ADVANCE 249 else END_STATE)"

definition mozcpp_kw_143 :: "bool \<Rightarrow> codepoint \<Rightarrow> lex_case" where
  "mozcpp_kw_143 eof la = (None,
      if la = CH_l then ADVANCE 250 else END_STATE)"

definition mozcpp_kw_144 :: "bool \<Rightarrow> codepoint \<Rightarrow> lex_case" where
  "mozcpp_kw_144 eof la = (None,
      if la = CH_e then ADVANCE 251 else END_STATE)"

definition mozcpp_kw_145 :: "bool \<Rightarrow> codepoint \<Rightarrow> lex_case" where
  "mozcpp_kw_145 eof la = (None,
      if la = CH_a then ADVANCE 252 else END_STATE)"

definition mozcpp_kw_146 :: "bool \<Rightarrow> codepoint \<Rightarrow> lex_case" where
  "mozcpp_kw_146 eof la = (Some mozcpp_anon_sym_for, END_STATE)"

definition mozcpp_kw_147 :: "bool \<Rightarrow> codepoint \<Rightarrow> lex_case" where
  "mozcpp_kw_147 eof la = (None,
      if la = CH_e then ADVANCE 253 else END_STATE)"

definition mozcpp_kw_148 :: "bool \<Rightarrow> codepoint \<Rightarrow> lex_case" where
  "mozcpp_kw_148 eof la = (None,
      if la = CH_o then ADVANCE 254 else END_STATE)"

definition mozcpp_kw_149 :: "bool \<Rightarrow> codepoint \<Rightarrow> lex_case" where
  "mozcpp_kw_149 eof la = (None,
      if la = CH_i then ADVANCE 255 else END_STATE)"

definition mozcpp_kw_150 :: "bool \<Rightarrow> codepoint \<Rightarrow> lex_case" where
  "mozcpp_kw_150 eof la = (None,
      if la = CH_g then ADVANCE 256 else END_STATE)"

definition mozcpp_kw_151 :: "bool \<Rightarrow> codepoint \<Rightarrow> lex_case" where
  "mozcpp_kw_151 eof la = (None,
      if la = CH_a then ADVANCE 257 else END_STATE)"

definition mozcpp_kw_152 :: "bool \<Rightarrow> codepoint \<Rightarrow> lex_case" where
  "mozcpp_kw_152 eof la = (None,
      if la = CH_e then ADVANCE 258 else END_STATE)"

definition mozcpp_kw_153 :: "bool \<Rightarrow> codepoint \<Rightarrow> lex_case" where
  "mozcpp_kw_153 eof la = (Some mozcpp_anon_sym_new, END_STATE)"

definition mozcpp_kw_154 :: "bool \<Rightarrow> codepoint \<Rightarrow> lex_case" where
  "mozcpp_kw_154 eof la = (None,
      if la = CH_x then ADVANCE 259 else END_STATE)"

definition mozcpp_kw_155 :: "bool \<Rightarrow> codepoint \<Rightarrow> lex_case" where
  "mozcpp_kw_155 eof la = (None,
      if la = CH_e then ADVANCE 260 else END_STATE)"

definition mozcpp_kw_156 :: "bool \<Rightarrow> codepoint \<Rightarrow> lex_case" where
  "mozcpp_kw_156 eof la = (Some mozcpp_anon_sym_not,
      if la = CH_UNDERSCORE then ADVANCE 261 else END_STATE)"

definition mozcpp_kw_157 :: "bool \<Rightarrow> codepoint \<Rightarrow> lex_case" where
  "mozcpp_kw_157 eof la = (None,
      if la = CH_l then ADVANCE 262 else END_STATE)"

definition mozcpp_kw_158 :: "bool \<Rightarrow> codepoint \<Rightarrow> lex_case" where
  "mozcpp_kw_158 eof la = (None,
      if la = CH_s then ADVANCE 263 else END_STATE)"

definition mozcpp_kw_159 :: "bool \<Rightarrow> codepoint \<Rightarrow> lex_case" where
  "mozcpp_kw_159 eof la = (None,
      if la = CH_r then ADVANCE 264 else END_STATE)"

definition mozcpp_kw_160 :: "bool \<Rightarrow> codepoint \<Rightarrow> lex_case" where
  "mozcpp_kw_160 eof la = (None,
      if la = CH_e then ADVANCE 265 else END_STATE)"

definition mozcpp_kw_161 :: "bool \<Rightarrow> codepoint \<Rightarrow> lex_case" where
  "mozcpp_kw_161 eof la = (None,
      if la = CH_r then ADVANCE 266 else END_STATE)"

definition mozcpp_kw_162 :: "bool \<Rightarrow> codepoint \<Rightarrow> lex_case" where
  "mozcpp_kw_162 eof la = (None,
      if la = CH_v then ADVANCE 267 else END_STATE)"

definition mozcpp_kw_163 :: "bool \<Rightarrow> codepoint \<Rightarrow> lex_case" where
  "mozcpp_kw_163 eof la = (None,
      if la = CH_t then ADVANCE 268 else END_STATE)"

definition mozcpp_kw_164 :: "bool \<Rightarrow> codepoint \<Rightarrow> lex_case" where
  "mozcpp_kw_164 eof la = (None,
      if la = CH_l then ADVANCE 269 else END_STATE)"

definition mozcpp_kw_165 :: "bool \<Rightarrow> codepoint \<Rightarrow> lex_case" where
  "mozcpp_kw_165 eof la = (None,
      if la = CH_i then ADVANCE 270 else END_STATE)"

definition mozcpp_kw_166 :: "bool \<Rightarrow> codepoint \<Rightarrow> lex_case" where
  "mozcpp_kw_166 eof la = (None,
      if la = CH_u then ADVANCE 271 else END_STATE)"

definition mozcpp_kw_167 :: "bool \<Rightarrow> codepoint \<Rightarrow> lex_case" where
  "mozcpp_kw_167 eof la = (None,
      if la = CH_t then ADVANCE 272 else END_STATE)"

definition mozcpp_kw_168 :: "bool \<Rightarrow> codepoint \<Rightarrow> lex_case" where
  "mozcpp_kw_168 eof la = (None,
      if la = CH_u then ADVANCE 273 else END_STATE)"

definition mozcpp_kw_169 :: "bool \<Rightarrow> codepoint \<Rightarrow> lex_case" where
  "mozcpp_kw_169 eof la = (None,
      if la = CH_r then ADVANCE 274 else END_STATE)"

definition mozcpp_kw_170 :: "bool \<Rightarrow> codepoint \<Rightarrow> lex_case" where
  "mozcpp_kw_170 eof la = (None,
      if la = CH_n then ADVANCE 275 else END_STATE)"

definition mozcpp_kw_171 :: "bool \<Rightarrow> codepoint \<Rightarrow> lex_case" where
  "mozcpp_kw_171 eof la = (None,
      if la = CH_e then ADVANCE 276 else END_STATE)"

definition mozcpp_kw_172 :: "bool \<Rightarrow> codepoint \<Rightarrow> lex_case" where
  "mozcpp_kw_172 eof la = (None,
      if la = CH_t then ADVANCE 277 else END_STATE)"

definition mozcpp_kw_173 :: "bool \<Rightarrow> codepoint \<Rightarrow> lex_case" where
  "mozcpp_kw_173 eof la = (None,
      if la = CH_u then ADVANCE 278 else END_STATE)"

definition mozcpp_kw_174 :: "bool \<Rightarrow> codepoint \<Rightarrow> lex_case" where
  "mozcpp_kw_174 eof la = (None,
      if la = CH_t then ADVANCE 279 else END_STATE)"

definition mozcpp_kw_175 :: "bool \<Rightarrow> codepoint \<Rightarrow> lex_case" where
  "mozcpp_kw_175 eof la = (None,
      if la = CH_p then ADVANCE 280 else END_STATE)"

definition mozcpp_kw_176 :: "bool \<Rightarrow> codepoint \<Rightarrow> lex_case" where
  "mozcpp_kw_176 eof la = (None,
      if la = CH_s then ADVANCE 281 else END_STATE)"

definition mozcpp_kw_177 :: "bool \<Rightarrow> codepoint \<Rightarrow> lex_case" where
  "mozcpp_kw_177 eof la = (None,
      if la = CH_e then ADVANCE 282 else
      if la = CH_o then ADVANCE 283 else END_STATE)"

definition mozcpp_kw_178 :: "bool \<Rightarrow> codepoint \<Rightarrow> lex_case" where
  "mozcpp_kw_178 eof la = (Some mozcpp_anon_sym_try, END_STATE)"

definition mozcpp_kw_179 :: "bool \<Rightarrow> codepoint \<Rightarrow> lex_case" where
  "mozcpp_kw_179 eof la = (None,
      if la = CH_e then ADVANCE 284 else END_STATE)"

definition mozcpp_kw_180 :: "bool \<Rightarrow> codepoint \<Rightarrow> lex_case" where
  "mozcpp_kw_180 eof la = (None,
      if la = CH_o then ADVANCE 285 else END_STATE)"

definition mozcpp_kw_181 :: "bool \<Rightarrow> codepoint \<Rightarrow> lex_case" where
  "mozcpp_kw_181 eof la = (None,
      if la = CH_i then ADVANCE 286 else END_STATE)"

definition mozcpp_kw_182 :: "bool \<Rightarrow> codepoint \<Rightarrow> lex_case" where
  "mozcpp_kw_182 eof la = (None,
      if la = CH_n then ADVANCE 287 else END_STATE)"

definition mozcpp_kw_183 :: "bool \<Rightarrow> codepoint \<Rightarrow> lex_case" where
  "mozcpp_kw_183 eof la = (None,
      if la = CH_t then ADVANCE 288 else END_STATE)"

definition mozcpp_kw_184 :: "bool \<Rightarrow> codepoint \<Rightarrow> lex_case" where
  "mozcpp_kw_184 eof la = (None,
      if la = CH_a then ADVANCE 289 else END_STATE)"

definition mozcpp_kw_185 :: "bool \<Rightarrow> codepoint \<Rightarrow> lex_case" where
  "mozcpp_kw_185 eof la = (None,
      if la = CH_l then ADVANCE 290 else END_STATE)"

definition mozcpp_kw_186 :: "bool \<Rightarrow> codepoint \<Rightarrow> lex_case" where
  "mozcpp_kw_186 eof la = (Some mozcpp_anon_sym_xor,
      if la = CH_UNDERSCORE then ADVANCE 291 else END_STATE)"

definition mozcpp_kw_187 :: "bool \<Rightarrow> codepoint \<Rightarrow> lex_case" where
  "mozcpp_kw_187 eof la = (None,
      if la = CH_E then ADVANCE 292 else END_STATE)"

definition mozcpp_kw_188 :: "bool \<Rightarrow> codepoint \<Rightarrow> lex_case" where
  "mozcpp_kw_188 eof la = (None,
      if la = CH_A then ADVANCE 293 else END_STATE)"

definition mozcpp_kw_189 :: "bool \<Rightarrow> codepoint \<Rightarrow> lex_case" where
  "mozcpp_kw_189 eof la = (None,
      if la = CH_T then ADVANCE 294 else END_STATE)"

definition mozcpp_kw_190 :: "bool \<Rightarrow> codepoint \<Rightarrow> lex_case" where
  "mozcpp_kw_190 eof la = (None,
      if la = CH_U then ADVANCE 295 else END_STATE)"

definition mozcpp_kw_191 :: "bool \<Rightarrow> codepoint \<Rightarrow> lex_case" where
  "mozcpp_kw_191 eof la = (None,
      if la = CH_R then ADVANCE 296 else END_STATE)"

definition mozcpp_kw_192 :: "bool \<Rightarrow> codepoint \<Rightarrow> lex_case" where
  "mozcpp_kw_192 eof la = (None,
      case ADVANCE_MAP [(CH_A, 297), (CH_C, 298), (CH_D, 299), (CH_F, 300), (CH_H, 301), (CH_I,
        302), (CH_M, 303), (CH_N, 304), (CH_O, 305), (CH_P, 306), (CH_R, 307), (CH_S, 308),
        (CH_T, 309), (CH_U, 310), (CH_X, 311)] la of Some st \<Rightarrow> ADVANCE st | None
        \<Rightarrow> ( END_STATE))"

definition mozcpp_kw_193 :: "bool \<Rightarrow> codepoint \<Rightarrow> lex_case" where
  "mozcpp_kw_193 eof la = (Some mozcpp_anon_sym_NULL, END_STATE)"

definition mozcpp_kw_194 :: "bool \<Rightarrow> codepoint \<Rightarrow> lex_case" where
  "mozcpp_kw_194 eof la = (None,
      if la = CH_E then ADVANCE 312 else END_STATE)"

definition mozcpp_kw_195 :: "bool \<Rightarrow> codepoint \<Rightarrow> lex_case" where
  "mozcpp_kw_195 eof la = (None,
      if la = CH_O then ADVANCE 313 else END_STATE)"

definition mozcpp_kw_196 :: "bool \<Rightarrow> codepoint \<Rightarrow> lex_case" where
  "mozcpp_kw_196 eof la = (None,
      if la = CH_R then ADVANCE 314 else END_STATE)"

definition mozcpp_kw_197 :: "bool \<Rightarrow> codepoint \<Rightarrow> lex_case" where
  "mozcpp_kw_197 eof la = (None,
      if la = CH_A then ADVANCE 315 else END_STATE)"

definition mozcpp_kw_198 :: "bool \<Rightarrow> codepoint \<Rightarrow> lex_case" where
  "mozcpp_kw_198 eof la = (None,
      if la = CH_T then ADVANCE 316 else END_STATE)"

definition mozcpp_kw_199 :: "bool \<Rightarrow> codepoint \<Rightarrow> lex_case" where
  "mozcpp_kw_199 eof la = (None,
      if la = CH_g then ADVANCE 317 else END_STATE)"

definition mozcpp_kw_200 :: "bool \<Rightarrow> codepoint \<Rightarrow> lex_case" where
  "mozcpp_kw_200 eof la = (None,
      if la = CH_m then ADVANCE 318 else END_STATE)"

definition mozcpp_kw_201 :: "bool \<Rightarrow> codepoint \<Rightarrow> lex_case" where
  "mozcpp_kw_201 eof la = (None,
      if la = CH_e then ADVANCE 319 else END_STATE)"

definition mozcpp_kw_202 :: "bool \<Rightarrow> codepoint \<Rightarrow> lex_case" where
  "mozcpp_kw_202 eof la = (None,
      if la = CH_n then ADVANCE 320 else END_STATE)"

definition mozcpp_kw_203 :: "bool \<Rightarrow> codepoint \<Rightarrow> lex_case" where
  "mozcpp_kw_203 eof la = (None,
      if la = CH_e then ADVANCE 321 else END_STATE)"

definition mozcpp_kw_204 :: "bool \<Rightarrow> codepoint \<Rightarrow> lex_case" where
  "mozcpp_kw_204 eof la = (None,
      if la = CH_i then ADVANCE 322 else END_STATE)"

definition mozcpp_kw_205 :: "bool \<Rightarrow> codepoint \<Rightarrow> lex_case" where
  "mozcpp_kw_205 eof la = (None,
      if la = CH_m then ADVANCE 323 else END_STATE)"

definition mozcpp_kw_206 :: "bool \<Rightarrow> codepoint \<Rightarrow> lex_case" where
  "mozcpp_kw_206 eof la = (None,
      if la = CH_t then ADVANCE 324 else END_STATE)"

definition mozcpp_kw_207 :: "bool \<Rightarrow> codepoint \<Rightarrow> lex_case" where
  "mozcpp_kw_207 eof la = (None,
      if la = CH_s then ADVANCE 325 else END_STATE)"

definition mozcpp_kw_208 :: "bool \<Rightarrow> codepoint \<Rightarrow> lex_case" where
  "mozcpp_kw_208 eof la = (None,
      if la = CH_e then ADVANCE 326 else END_STATE)"

definition mozcpp_kw_209 :: "bool \<Rightarrow> codepoint \<Rightarrow> lex_case" where
  "mozcpp_kw_209 eof la = (None,
      if la = CH_r then ADVANCE 327 else END_STATE)"

definition mozcpp_kw_210 :: "bool \<Rightarrow> codepoint \<Rightarrow> lex_case" where
  "mozcpp_kw_210 eof la = (None,
      if la = CH_c then ADVANCE 328 else END_STATE)"

definition mozcpp_kw_211 :: "bool \<Rightarrow> codepoint \<Rightarrow> lex_case" where
  "mozcpp_kw_211 eof la = (None,
      if la = CH_c then ADVANCE 329 else
      if la = CH_t then ADVANCE 330 else END_STATE)"

definition mozcpp_kw_212 :: "bool \<Rightarrow> codepoint \<Rightarrow> lex_case" where
  "mozcpp_kw_212 eof la = (None,
      if la = CH_s then ADVANCE 331 else END_STATE)"

definition mozcpp_kw_213 :: "bool \<Rightarrow> codepoint \<Rightarrow> lex_case" where
  "mozcpp_kw_213 eof la = (None,
      if la = CH_n then ADVANCE 332 else END_STATE)"

definition mozcpp_kw_214 :: "bool \<Rightarrow> codepoint \<Rightarrow> lex_case" where
  "mozcpp_kw_214 eof la = (None,
      if la = CH_r then ADVANCE 333 else END_STATE)"

definition mozcpp_kw_215 :: "bool \<Rightarrow> codepoint \<Rightarrow> lex_case" where
  "mozcpp_kw_215 eof la = (None,
      if la = CH_l then ADVANCE 334 else END_STATE)"

definition mozcpp_kw_216 :: "bool \<Rightarrow> codepoint \<Rightarrow> lex_case" where
  "mozcpp_kw_216 eof la = (None,
      if la = CH_a then ADVANCE 335 else END_STATE)"

definition mozcpp_kw_217 :: "bool \<Rightarrow> codepoint \<Rightarrow> lex_case" where
  "mozcpp_kw_217 eof la = (None,
      if la = CH_s then ADVANCE 336 else END_STATE)"

definition mozcpp_kw_218 :: "bool \<Rightarrow> codepoint \<Rightarrow> lex_case" where
  "mozcpp_kw_218 eof la = (None,
      if la = CH_t then ADVANCE 337 else END_STATE)"

definition mozcpp_kw_219 :: "bool \<Rightarrow> codepoint \<Rightarrow> lex_case" where
  "mozcpp_kw_219 eof la = (None,
      if la = CH_d then ADVANCE 338 else END_STATE)"

definition mozcpp_kw_220 :: "bool \<Rightarrow> codepoint \<Rightarrow> lex_case" where
  "mozcpp_kw_220 eof la = (None,
      if la = CH_i then ADVANCE 339 else
      if la = CH_r then ADVANCE 340 else END_STATE)"

definition mozcpp_kw_221 :: "bool \<Rightarrow> codepoint \<Rightarrow> lex_case" where
  "mozcpp_kw_221 eof la = (None,
      if la = CH_y then ADVANCE 341 else END_STATE)"

definition mozcpp_kw_222 :: "bool \<Rightarrow> codepoint \<Rightarrow> lex_case" where
  "mozcpp_kw_222 eof la = (None,
      if la = CH_a then ADVANCE 342 else END_STATE)"

definition mozcpp_kw_223 :: "bool \<Rightarrow> codepoint \<Rightarrow> lex_case" where
  "mozcpp_kw_223 eof la = (None,
      if la = CH_t then ADVANCE 343 else END_STATE)"

definition mozcpp_kw_224 :: "bool \<Rightarrow> codepoint \<Rightarrow> lex_case" where
  "mozcpp_kw_224 eof la = (None,
      if la = CH_c then ADVANCE 344 else END_STATE)"

definition mozcpp_kw_225 :: "bool \<Rightarrow> codepoint \<Rightarrow> lex_case" where
  "mozcpp_kw_225 eof la = (None,
      if la = CH_l then ADVANCE 345 else END_STATE)"

definition mozcpp_kw_226 :: "bool \<Rightarrow> codepoint \<Rightarrow> lex_case" where
  "mozcpp_kw_226 eof la = (None,
      if la = CH_g then ADVANCE 346 else END_STATE)"

definition mozcpp_kw_227 :: "bool \<Rightarrow> codepoint \<Rightarrow> lex_case" where
  "mozcpp_kw_227 eof la = (None,
      if la = CH_l then ADVANCE 347 else END_STATE)"

definition mozcpp_kw_228 :: "bool \<Rightarrow> codepoint \<Rightarrow> lex_case" where
  "mozcpp_kw_228 eof la = (None,
      if la = CH_n then ADVANCE 348 else END_STATE)"

definition mozcpp_kw_229 :: "bool \<Rightarrow> codepoint \<Rightarrow> lex_case" where
  "mozcpp_kw_229 eof la = (None,
      if la = CH_e then ADVANCE 349 else END_STATE)"

definition mozcpp_kw_230 :: "bool \<Rightarrow> codepoint \<Rightarrow> lex_case" where
  "mozcpp_kw_230 eof la = (Some mozcpp_sym_auto, END_STATE)"

definition mozcpp_kw_231 :: "bool \<Rightarrow> codepoint \<Rightarrow> lex_case" where
  "mozcpp_kw_231 eof la = (None,
      if la = CH_n then ADVANCE 350 else END_STATE)"

definition mozcpp_kw_232 :: "bool \<Rightarrow> codepoint \<Rightarrow> lex_case" where
  "mozcpp_kw_232 eof la = (None,
      if la = CH_r then ADVANCE 351 else END_STATE)"

definition mozcpp_kw_233 :: "bool \<Rightarrow> codepoint \<Rightarrow> lex_case" where
  "mozcpp_kw_233 eof la = (None,
      if la = CH_k then ADVANCE 352 else END_STATE)"

definition mozcpp_kw_234 :: "bool \<Rightarrow> codepoint \<Rightarrow> lex_case" where
  "mozcpp_kw_234 eof la = (Some mozcpp_anon_sym_case, END_STATE)"

definition mozcpp_kw_235 :: "bool \<Rightarrow> codepoint \<Rightarrow> lex_case" where
  "mozcpp_kw_235 eof la = (None,
      if la = CH_h then ADVANCE 353 else END_STATE)"

definition mozcpp_kw_236 :: "bool \<Rightarrow> codepoint \<Rightarrow> lex_case" where
  "mozcpp_kw_236 eof la = (None,
      if la = CH_s then ADVANCE 354 else END_STATE)"

definition mozcpp_kw_237 :: "bool \<Rightarrow> codepoint \<Rightarrow> lex_case" where
  "mozcpp_kw_237 eof la = (None,
      if la = CH_w then ADVANCE 355 else END_STATE)"

definition mozcpp_kw_238 :: "bool \<Rightarrow> codepoint \<Rightarrow> lex_case" where
  "mozcpp_kw_238 eof la = (None,
      if la = CH_e then ADVANCE 356 else END_STATE)"

definition mozcpp_kw_239 :: "bool \<Rightarrow> codepoint \<Rightarrow> lex_case" where
  "mozcpp_kw_239 eof la = (None,
      if la = CH_i then ADVANCE 357 else END_STATE)"

definition mozcpp_kw_240 :: "bool \<Rightarrow> codepoint \<Rightarrow> lex_case" where
  "mozcpp_kw_240 eof la = (None,
      if la = CH_l then ADVANCE 358 else END_STATE)"

definition mozcpp_kw_241 :: "bool \<Rightarrow> codepoint \<Rightarrow> lex_case" where
  "mozcpp_kw_241 eof la = (None,
      if la = CH_e then ADVANCE 359 else END_STATE)"

definition mozcpp_kw_242 :: "bool \<Rightarrow> codepoint \<Rightarrow> lex_case" where
  "mozcpp_kw_242 eof la = (None,
      if la = CH_t then ADVANCE 360 else END_STATE)"

definition mozcpp_kw_243 :: "bool \<Rightarrow> codepoint \<Rightarrow> lex_case" where
  "mozcpp_kw_243 eof la = (None,
      if la = CH_i then ADVANCE 361 else END_STATE)"

definition mozcpp_kw_244 :: "bool \<Rightarrow> codepoint \<Rightarrow> lex_case" where
  "mozcpp_kw_244 eof la = (None,
      if la = CH_t then ADVANCE 362 else END_STATE)"

definition mozcpp_kw_245 :: "bool \<Rightarrow> codepoint \<Rightarrow> lex_case" where
  "mozcpp_kw_245 eof la = (None,
      if la = CH_u then ADVANCE 363 else END_STATE)"

definition mozcpp_kw_246 :: "bool \<Rightarrow> codepoint \<Rightarrow> lex_case" where
  "mozcpp_kw_246 eof la = (None,
      if la = CH_n then ADVANCE 364 else END_STATE)"

definition mozcpp_kw_247 :: "bool \<Rightarrow> codepoint \<Rightarrow> lex_case" where
  "mozcpp_kw_247 eof la = (None,
      if la = CH_t then ADVANCE 365 else END_STATE)"

definition mozcpp_kw_248 :: "bool \<Rightarrow> codepoint \<Rightarrow> lex_case" where
  "mozcpp_kw_248 eof la = (Some mozcpp_anon_sym_else, END_STATE)"

definition mozcpp_kw_249 :: "bool \<Rightarrow> codepoint \<Rightarrow> lex_case" where
  "mozcpp_kw_249 eof la = (Some mozcpp_anon_sym_enum, END_STATE)"

definition mozcpp_kw_250 :: "bool \<Rightarrow> codepoint \<Rightarrow> lex_case" where
  "mozcpp_kw_250 eof la = (None,
      if la = CH_i then ADVANCE 366 else END_STATE)"

definition mozcpp_kw_251 :: "bool \<Rightarrow> codepoint \<Rightarrow> lex_case" where
  "mozcpp_kw_251 eof la = (None,
      if la = CH_r then ADVANCE 367 else END_STATE)"

definition mozcpp_kw_252 :: "bool \<Rightarrow> codepoint \<Rightarrow> lex_case" where
  "mozcpp_kw_252 eof la = (None,
      if la = CH_l then ADVANCE 368 else END_STATE)"

definition mozcpp_kw_253 :: "bool \<Rightarrow> codepoint \<Rightarrow> lex_case" where
  "mozcpp_kw_253 eof la = (None,
      if la = CH_n then ADVANCE 369 else END_STATE)"

definition mozcpp_kw_254 :: "bool \<Rightarrow> codepoint \<Rightarrow> lex_case" where
  "mozcpp_kw_254 eof la = (Some mozcpp_anon_sym_goto, END_STATE)"

definition mozcpp_kw_255 :: "bool \<Rightarrow> codepoint \<Rightarrow> lex_case" where
  "mozcpp_kw_255 eof la = (None,
      if la = CH_n then ADVANCE 370 else END_STATE)"

definition mozcpp_kw_256 :: "bool \<Rightarrow> codepoint \<Rightarrow> lex_case" where
  "mozcpp_kw_256 eof la = (Some mozcpp_anon_sym_long, END_STATE)"

definition mozcpp_kw_257 :: "bool \<Rightarrow> codepoint \<Rightarrow> lex_case" where
  "mozcpp_kw_257 eof la = (None,
      if la = CH_b then ADVANCE 371 else END_STATE)"

definition mozcpp_kw_258 :: "bool \<Rightarrow> codepoint \<Rightarrow> lex_case" where
  "mozcpp_kw_258 eof la = (None,
      if la = CH_s then ADVANCE 372 else END_STATE)"

definition mozcpp_kw_259 :: "bool \<Rightarrow> codepoint \<Rightarrow> lex_case" where
  "mozcpp_kw_259 eof la = (None,
      if la = CH_c then ADVANCE 373 else END_STATE)"

definition mozcpp_kw_260 :: "bool \<Rightarrow> codepoint \<Rightarrow> lex_case" where
  "mozcpp_kw_260 eof la = (None,
      if la = CH_t then ADVANCE 374 else END_STATE)"

definition mozcpp_kw_261 :: "bool \<Rightarrow> codepoint \<Rightarrow> lex_case" where
  "mozcpp_kw_261 eof la = (None,
      if la = CH_e then ADVANCE 375 else END_STATE)"

definition mozcpp_kw_262 :: "bool \<Rightarrow> codepoint \<Rightarrow> lex_case" where
  "mozcpp_kw_262 eof la = (None,
      if la = CH_p then ADVANCE 376 else END_STATE)"

definition mozcpp_kw_263 :: "bool \<Rightarrow> codepoint \<Rightarrow> lex_case" where
  "mozcpp_kw_263 eof la = (None,
      if la = CH_e then ADVANCE 377 else END_STATE)"

definition mozcpp_kw_264 :: "bool \<Rightarrow> codepoint \<Rightarrow> lex_case" where
  "mozcpp_kw_264 eof la = (None,
      if la = CH_a then ADVANCE 378 else END_STATE)"

definition mozcpp_kw_265 :: "bool \<Rightarrow> codepoint \<Rightarrow> lex_case" where
  "mozcpp_kw_265 eof la = (None,
      if la = CH_q then ADVANCE 379 else END_STATE)"

definition mozcpp_kw_266 :: "bool \<Rightarrow> codepoint \<Rightarrow> lex_case" where
  "mozcpp_kw_266 eof la = (None,
      if la = CH_r then ADVANCE 380 else END_STATE)"

definition mozcpp_kw_267 :: "bool \<Rightarrow> codepoint \<Rightarrow> lex_case" where
  "mozcpp_kw_267 eof la = (None,
      if la = CH_a then ADVANCE 381 else END_STATE)"

definition mozcpp_kw_268 :: "bool \<Rightarrow> codepoint \<Rightarrow> lex_case" where
  "mozcpp_kw_268 eof la = (None,
      if la = CH_e then ADVANCE 382 else END_STATE)"

definition mozcpp_kw_269 :: "bool \<Rightarrow> codepoint \<Rightarrow> lex_case" where
  "mozcpp_kw_269 eof la = (None,
      if la = CH_i then ADVANCE 383 else END_STATE)"

definition mozcpp_kw_270 :: "bool \<Rightarrow> codepoint \<Rightarrow> lex_case" where
  "mozcpp_kw_270 eof la = (None,
      if la = CH_s then ADVANCE 384 else END_STATE)"

definition mozcpp_kw_271 :: "bool \<Rightarrow> codepoint \<Rightarrow> lex_case" where
  "mozcpp_kw_271 eof la = (None,
      if la = CH_i then ADVANCE 385 else END_STATE)"

definition mozcpp_kw_272 :: "bool \<Rightarrow> codepoint \<Rightarrow> lex_case" where
  "mozcpp_kw_272 eof la = (None,
      if la = CH_r then ADVANCE 386 else END_STATE)"

definition mozcpp_kw_273 :: "bool \<Rightarrow> codepoint \<Rightarrow> lex_case" where
  "mozcpp_kw_273 eof la = (None,
      if la = CH_r then ADVANCE 387 else END_STATE)"

definition mozcpp_kw_274 :: "bool \<Rightarrow> codepoint \<Rightarrow> lex_case" where
  "mozcpp_kw_274 eof la = (None,
      if la = CH_t then ADVANCE 388 else END_STATE)"

definition mozcpp_kw_275 :: "bool \<Rightarrow> codepoint \<Rightarrow> lex_case" where
  "mozcpp_kw_275 eof la = (None,
      if la = CH_e then ADVANCE 389 else END_STATE)"

definition mozcpp_kw_276 :: "bool \<Rightarrow> codepoint \<Rightarrow> lex_case" where
  "mozcpp_kw_276 eof la = (None,
      if la = CH_o then ADVANCE 390 else END_STATE)"

definition mozcpp_kw_277 :: "bool \<Rightarrow> codepoint \<Rightarrow> lex_case" where
  "mozcpp_kw_277 eof la = (None,
      if la = CH_i then ADVANCE 391 else END_STATE)"

definition mozcpp_kw_278 :: "bool \<Rightarrow> codepoint \<Rightarrow> lex_case" where
  "mozcpp_kw_278 eof la = (None,
      if la = CH_c then ADVANCE 392 else END_STATE)"

definition mozcpp_kw_279 :: "bool \<Rightarrow> codepoint \<Rightarrow> lex_case" where
  "mozcpp_kw_279 eof la = (None,
      if la = CH_c then ADVANCE 393 else END_STATE)"

definition mozcpp_kw_280 :: "bool \<Rightarrow> codepoint \<Rightarrow> lex_case" where
  "mozcpp_kw_280 eof la = (None,
      if la = CH_l then ADVANCE 394 else END_STATE)"

definition mozcpp_kw_281 :: "bool \<Rightarrow> codepoint \<Rightarrow> lex_case" where
  "mozcpp_kw_281 eof la = (Some mozcpp_sym_this, END_STATE)"

definition mozcpp_kw_282 :: "bool \<Rightarrow> codepoint \<Rightarrow> lex_case" where
  "mozcpp_kw_282 eof la = (None,
      if la = CH_a then ADVANCE 395 else END_STATE)"

definition mozcpp_kw_283 :: "bool \<Rightarrow> codepoint \<Rightarrow> lex_case" where
  "mozcpp_kw_283 eof la = (None,
      if la = CH_w then ADVANCE 396 else END_STATE)"

definition mozcpp_kw_284 :: "bool \<Rightarrow> codepoint \<Rightarrow> lex_case" where
  "mozcpp_kw_284 eof la = (None,
      if la = CH_d then ADVANCE 397 else
      if la = CH_n then ADVANCE 398 else END_STATE)"

definition mozcpp_kw_285 :: "bool \<Rightarrow> codepoint \<Rightarrow> lex_case" where
  "mozcpp_kw_285 eof la = (None,
      if la = CH_n then ADVANCE 399 else END_STATE)"

definition mozcpp_kw_286 :: "bool \<Rightarrow> codepoint \<Rightarrow> lex_case" where
  "mozcpp_kw_286 eof la = (None,
      if la = CH_g then ADVANCE 400 else END_STATE)"

definition mozcpp_kw_287 :: "bool \<Rightarrow> codepoint \<Rightarrow> lex_case" where
  "mozcpp_kw_287 eof la = (None,
      if la = CH_g then ADVANCE 401 else END_STATE)"

definition mozcpp_kw_288 :: "bool \<Rightarrow> codepoint \<Rightarrow> lex_case" where
  "mozcpp_kw_288 eof la = (None,
      if la = CH_u then ADVANCE 402 else END_STATE)"

definition mozcpp_kw_289 :: "bool \<Rightarrow> codepoint \<Rightarrow> lex_case" where
  "mozcpp_kw_289 eof la = (None,
      if la = CH_t then ADVANCE 403 else END_STATE)"

definition mozcpp_kw_290 :: "bool \<Rightarrow> codepoint \<Rightarrow> lex_case" where
  "mozcpp_kw_290 eof la = (None,
      if la = CH_e then ADVANCE 404 else END_STATE)"

definition mozcpp_kw_291 :: "bool \<Rightarrow> codepoint \<Rightarrow> lex_case" where
  "mozcpp_kw_291 eof la = (None,
      if la = CH_e then ADVANCE 405 else END_STATE)"

definition mozcpp_kw_292 :: "bool \<Rightarrow> codepoint \<Rightarrow> lex_case" where
  "mozcpp_kw_292 eof la = (None,
      if la = CH_UNDERSCORE then ADVANCE 406 else END_STATE)"

definition mozcpp_kw_293 :: "bool \<Rightarrow> codepoint \<Rightarrow> lex_case" where
  "mozcpp_kw_293 eof la = (None,
      if la = CH_R then ADVANCE 407 else END_STATE)"

definition mozcpp_kw_294 :: "bool \<Rightarrow> codepoint \<Rightarrow> lex_case" where
  "mozcpp_kw_294 eof la = (None,
      if la = CH_R then ADVANCE 408 else END_STATE)"

definition mozcpp_kw_295 :: "bool \<Rightarrow> codepoint \<Rightarrow> lex_case" where
  "mozcpp_kw_295 eof la = (None,
      if la = CH_B then ADVANCE 409 else END_STATE)"

definition mozcpp_kw_296 :: "bool \<Rightarrow> codepoint \<Rightarrow> lex_case" where
  "mozcpp_kw_296 eof la = (None,
      if la = CH_Y then ADVANCE 410 else END_STATE)"

definition mozcpp_kw_297 :: "bool \<Rightarrow> codepoint \<Rightarrow> lex_case" where
  "mozcpp_kw_297 eof la = (None,
      if la = CH_L then ADVANCE 411 else
      if la = CH_S then ADVANCE 412 else END_STATE)"

definition mozcpp_kw_298 :: "bool \<Rightarrow> codepoint \<Rightarrow> lex_case" where
  "mozcpp_kw_298 eof la = (None,
      if la = CH_A then ADVANCE 413 else
      if la = CH_O then ADVANCE 414 else END_STATE)"

definition mozcpp_kw_299 :: "bool \<Rightarrow> codepoint \<Rightarrow> lex_case" where
  "mozcpp_kw_299 eof la = (None,
      if la = CH_E then ADVANCE 415 else END_STATE)"

definition mozcpp_kw_300 :: "bool \<Rightarrow> codepoint \<Rightarrow> lex_case" where
  "mozcpp_kw_300 eof la = (None,
      if la = CH_A then ADVANCE 416 else
      if la = CH_O then ADVANCE 417 else END_STATE)"

definition mozcpp_kw_301 :: "bool \<Rightarrow> codepoint \<Rightarrow> lex_case" where
  "mozcpp_kw_301 eof la = (None,
      if la = CH_A then ADVANCE 418 else
      if la = CH_E then ADVANCE 419 else END_STATE)"

definition mozcpp_kw_302 :: "bool \<Rightarrow> codepoint \<Rightarrow> lex_case" where
  "mozcpp_kw_302 eof la = (None,
      if la = CH_M then ADVANCE 420 else
      if la = CH_N then ADVANCE 421 else
      if la = CH_S then ADVANCE 422 else END_STATE)"

definition mozcpp_kw_303 :: "bool \<Rightarrow> codepoint \<Rightarrow> lex_case" where
  "mozcpp_kw_303 eof la = (None,
      if la = CH_A then ADVANCE 423 else
      if la = CH_U then ADVANCE 424 else END_STATE)"

definition mozcpp_kw_304 :: "bool \<Rightarrow> codepoint \<Rightarrow> lex_case" where
  "mozcpp_kw_304 eof la = (None,
      if la = CH_E then ADVANCE 425 else
      if la = CH_O then ADVANCE 426 else END_STATE)"

definition mozcpp_kw_305 :: "bool \<Rightarrow> codepoint \<Rightarrow> lex_case" where
  "mozcpp_kw_305 eof la = (None,
      if la = CH_N then ADVANCE 427 else
      if la = CH_W then ADVANCE 428 else END_STATE)"

definition mozcpp_kw_306 :: "bool \<Rightarrow> codepoint \<Rightarrow> lex_case" where
  "mozcpp_kw_306 eof la = (None,
      if la = CH_O then ADVANCE 429 else
      if la = CH_R then ADVANCE 430 else
      if la = CH_U then ADVANCE 431 else END_STATE)"

definition mozcpp_kw_307 :: "bool \<Rightarrow> codepoint \<Rightarrow> lex_case" where
  "mozcpp_kw_307 eof la = (None,
      if la = CH_A then ADVANCE 432 else
      if la = CH_E then ADVANCE 433 else END_STATE)"

definition mozcpp_kw_308 :: "bool \<Rightarrow> codepoint \<Rightarrow> lex_case" where
  "mozcpp_kw_308 eof la = (None,
      if la = CH_T then ADVANCE 434 else END_STATE)"

definition mozcpp_kw_309 :: "bool \<Rightarrow> codepoint \<Rightarrow> lex_case" where
  "mozcpp_kw_309 eof la = (None,
      if la = CH_E then ADVANCE 435 else
      if la = CH_R then ADVANCE 436 else
      if la = CH_S then ADVANCE 437 else END_STATE)"

definition mozcpp_kw_310 :: "bool \<Rightarrow> codepoint \<Rightarrow> lex_case" where
  "mozcpp_kw_310 eof la = (None,
      if la = CH_N then ADVANCE 438 else END_STATE)"

definition mozcpp_kw_311 :: "bool \<Rightarrow> codepoint \<Rightarrow> lex_case" where
  "mozcpp_kw_311 eof la = (None,
      if la = CH_P then ADVANCE 439 else END_STATE)"

definition mozcpp_kw_312 :: "bool \<Rightarrow> codepoint \<Rightarrow> lex_case" where
  "mozcpp_kw_312 eof la = (None,
      if la = CH_T then ADVANCE 440 else END_STATE)"

definition mozcpp_kw_313 :: "bool \<Rightarrow> codepoint \<Rightarrow> lex_case" where
  "mozcpp_kw_313 eof la = (None,
      if la = CH_T then ADVANCE 441 else END_STATE)"

definition mozcpp_kw_314 :: "bool \<Rightarrow> codepoint \<Rightarrow> lex_case" where
  "mozcpp_kw_314 eof la = (None,
      if la = CH_Y then ADVANCE 442 else END_STATE)"

definition mozcpp_kw_315 :: "bool \<Rightarrow> codepoint \<Rightarrow> lex_case" where
  "mozcpp_kw_315 eof la = (None,
      if la = CH_R then ADVANCE 443 else END_STATE)"

definition mozcpp_kw_316 :: "bool \<Rightarrow> codepoint \<Rightarrow> lex_case" where
  "mozcpp_kw_316 eof la = (None,
      if la = CH_R then ADVANCE 444 else END_STATE)"

definition mozcpp_kw_317 :: "bool \<Rightarrow> codepoint \<Rightarrow> lex_case" where
  "mozcpp_kw_317 eof la = (None,
      if la = CH_n then ADVANCE 445 else END_STATE)"

definition mozcpp_kw_318 :: "bool \<Rightarrow> codepoint \<Rightarrow> lex_case" where
  "mozcpp_kw_318 eof la = (None,
      if la = CH_i then ADVANCE 446 else END_STATE)"

definition mozcpp_kw_319 :: "bool \<Rightarrow> codepoint \<Rightarrow> lex_case" where
  "mozcpp_kw_319 eof la = (None,
      if la = CH_r then ADVANCE 447 else END_STATE)"

definition mozcpp_kw_320 :: "bool \<Rightarrow> codepoint \<Rightarrow> lex_case" where
  "mozcpp_kw_320 eof la = (None,
      if la = CH_u then ADVANCE 448 else END_STATE)"

definition mozcpp_kw_321 :: "bool \<Rightarrow> codepoint \<Rightarrow> lex_case" where
  "mozcpp_kw_321 eof la = (None,
      if la = CH_t then ADVANCE 449 else END_STATE)"

definition mozcpp_kw_322 :: "bool \<Rightarrow> codepoint \<Rightarrow> lex_case" where
  "mozcpp_kw_322 eof la = (None,
      if la = CH_g then ADVANCE 450 else END_STATE)"

definition mozcpp_kw_323 :: "bool \<Rightarrow> codepoint \<Rightarrow> lex_case" where
  "mozcpp_kw_323 eof la = (Some mozcpp_anon_sym___asm,
      if la = CH_UNDERSCORE then ADVANCE 451 else END_STATE)"

definition mozcpp_kw_324 :: "bool \<Rightarrow> codepoint \<Rightarrow> lex_case" where
  "mozcpp_kw_324 eof la = (None,
      if la = CH_r then ADVANCE 452 else END_STATE)"

definition mozcpp_kw_325 :: "bool \<Rightarrow> codepoint \<Rightarrow> lex_case" where
  "mozcpp_kw_325 eof la = (None,
      if la = CH_e then ADVANCE 453 else END_STATE)"

definition mozcpp_kw_326 :: "bool \<Rightarrow> codepoint \<Rightarrow> lex_case" where
  "mozcpp_kw_326 eof la = (None,
      if la = CH_c then ADVANCE 454 else END_STATE)"

definition mozcpp_kw_327 :: "bool \<Rightarrow> codepoint \<Rightarrow> lex_case" where
  "mozcpp_kw_327 eof la = (None,
      if la = CH_c then ADVANCE 455 else END_STATE)"

definition mozcpp_kw_328 :: "bool \<Rightarrow> codepoint \<Rightarrow> lex_case" where
  "mozcpp_kw_328 eof la = (None,
      if la = CH_l then ADVANCE 456 else END_STATE)"

definition mozcpp_kw_329 :: "bool \<Rightarrow> codepoint \<Rightarrow> lex_case" where
  "mozcpp_kw_329 eof la = (None,
      if la = CH_e then ADVANCE 457 else END_STATE)"

definition mozcpp_kw_330 :: "bool \<Rightarrow> codepoint \<Rightarrow> lex_case" where
  "mozcpp_kw_330 eof la = (None,
      if la = CH_e then ADVANCE 458 else END_STATE)"

definition mozcpp_kw_331 :: "bool \<Rightarrow> codepoint \<Rightarrow> lex_case" where
  "mozcpp_kw_331 eof la = (None,
      if la = CH_t then ADVANCE 459 else END_STATE)"

definition mozcpp_kw_332 :: "bool \<Rightarrow> codepoint \<Rightarrow> lex_case" where
  "mozcpp_kw_332 eof la = (None,
      if la = CH_a then ADVANCE 460 else END_STATE)"

definition mozcpp_kw_333 :: "bool \<Rightarrow> codepoint \<Rightarrow> lex_case" where
  "mozcpp_kw_333 eof la = (None,
      if la = CH_c then ADVANCE 461 else END_STATE)"

definition mozcpp_kw_334 :: "bool \<Rightarrow> codepoint \<Rightarrow> lex_case" where
  "mozcpp_kw_334 eof la = (None,
      if la = CH_i then ADVANCE 462 else END_STATE)"

definition mozcpp_kw_335 :: "bool \<Rightarrow> codepoint \<Rightarrow> lex_case" where
  "mozcpp_kw_335 eof la = (None,
      if la = CH_v then ADVANCE 463 else END_STATE)"

definition mozcpp_kw_336 :: "bool \<Rightarrow> codepoint \<Rightarrow> lex_case" where
  "mozcpp_kw_336 eof la = (None,
      if la = CH_t then ADVANCE 464 else END_STATE)"

definition mozcpp_kw_337 :: "bool \<Rightarrow> codepoint \<Rightarrow> lex_case" where
  "mozcpp_kw_337 eof la = (None,
      if la = CH_r then ADVANCE 465 else END_STATE)"

definition mozcpp_kw_338 :: "bool \<Rightarrow> codepoint \<Rightarrow> lex_case" where
  "mozcpp_kw_338 eof la = (None,
      if la = CH_c then ADVANCE 466 else END_STATE)"

definition mozcpp_kw_339 :: "bool \<Rightarrow> codepoint \<Rightarrow> lex_case" where
  "mozcpp_kw_339 eof la = (None,
      if la = CH_s then ADVANCE 467 else END_STATE)"

definition mozcpp_kw_340 :: "bool \<Rightarrow> codepoint \<Rightarrow> lex_case" where
  "mozcpp_kw_340 eof la = (None,
      if la = CH_e then ADVANCE 468 else END_STATE)"

definition mozcpp_kw_341 :: "bool \<Rightarrow> codepoint \<Rightarrow> lex_case" where
  "mozcpp_kw_341 eof la = (Some mozcpp_anon_sym___try, END_STATE)"

definition mozcpp_kw_342 :: "bool \<Rightarrow> codepoint \<Rightarrow> lex_case" where
  "mozcpp_kw_342 eof la = (None,
      if la = CH_l then ADVANCE 469 else END_STATE)"

definition mozcpp_kw_343 :: "bool \<Rightarrow> codepoint \<Rightarrow> lex_case" where
  "mozcpp_kw_343 eof la = (None,
      if la = CH_r then ADVANCE 470 else END_STATE)"

definition mozcpp_kw_344 :: "bool \<Rightarrow> codepoint \<Rightarrow> lex_case" where
  "mozcpp_kw_344 eof la = (None,
      if la = CH_t then ADVANCE 471 else END_STATE)"

definition mozcpp_kw_345 :: "bool \<Rightarrow> codepoint \<Rightarrow> lex_case" where
  "mozcpp_kw_345 eof la = (None,
      if la = CH_a then ADVANCE 472 else END_STATE)"

definition mozcpp_kw_346 :: "bool \<Rightarrow> codepoint \<Rightarrow> lex_case" where
  "mozcpp_kw_346 eof la = (None,
      if la = CH_n then ADVANCE 473 else END_STATE)"

definition mozcpp_kw_347 :: "bool \<Rightarrow> codepoint \<Rightarrow> lex_case" where
  "mozcpp_kw_347 eof la = (None,
      if la = CH_i then ADVANCE 474 else END_STATE)"

definition mozcpp_kw_348 :: "bool \<Rightarrow> codepoint \<Rightarrow> lex_case" where
  "mozcpp_kw_348 eof la = (None,
      if la = CH_a then ADVANCE 475 else
      if la = CH_o then ADVANCE 476 else END_STATE)"

definition mozcpp_kw_349 :: "bool \<Rightarrow> codepoint \<Rightarrow> lex_case" where
  "mozcpp_kw_349 eof la = (None,
      if la = CH_q then ADVANCE 477 else END_STATE)"

definition mozcpp_kw_350 :: "bool \<Rightarrow> codepoint \<Rightarrow> lex_case" where
  "mozcpp_kw_350 eof la = (None,
      if la = CH_d then ADVANCE 478 else END_STATE)"

definition mozcpp_kw_351 :: "bool \<Rightarrow> codepoint \<Rightarrow> lex_case" where
  "mozcpp_kw_351 eof la = (Some mozcpp_anon_sym_bitor, END_STATE)"

definition mozcpp_kw_352 :: "bool \<Rightarrow> codepoint \<Rightarrow> lex_case" where
  "mozcpp_kw_352 eof la = (Some mozcpp_anon_sym_break, END_STATE)"

definition mozcpp_kw_353 :: "bool \<Rightarrow> codepoint \<Rightarrow> lex_case" where
  "mozcpp_kw_353 eof la = (Some mozcpp_anon_sym_catch, END_STATE)"

definition mozcpp_kw_354 :: "bool \<Rightarrow> codepoint \<Rightarrow> lex_case" where
  "mozcpp_kw_354 eof la = (Some mozcpp_anon_sym_class, END_STATE)"

definition mozcpp_kw_355 :: "bool \<Rightarrow> codepoint \<Rightarrow> lex_case" where
  "mozcpp_kw_355 eof la = (None,
      if la = CH_a then ADVANCE 479 else END_STATE)"

definition mozcpp_kw_356 :: "bool \<Rightarrow> codepoint \<Rightarrow> lex_case" where
  "mozcpp_kw_356 eof la = (None,
      if la = CH_t then ADVANCE 480 else END_STATE)"

definition mozcpp_kw_357 :: "bool \<Rightarrow> codepoint \<Rightarrow> lex_case" where
  "mozcpp_kw_357 eof la = (None,
      if la = CH_e then ADVANCE 481 else END_STATE)"

definition mozcpp_kw_358 :: "bool \<Rightarrow> codepoint \<Rightarrow> lex_case" where
  "mozcpp_kw_358 eof la = (Some mozcpp_anon_sym_compl, END_STATE)"

definition mozcpp_kw_359 :: "bool \<Rightarrow> codepoint \<Rightarrow> lex_case" where
  "mozcpp_kw_359 eof la = (None,
      if la = CH_p then ADVANCE 482 else END_STATE)"

definition mozcpp_kw_360 :: "bool \<Rightarrow> codepoint \<Rightarrow> lex_case" where
  "mozcpp_kw_360 eof la = (Some mozcpp_anon_sym_const,
      if la = CH_e then ADVANCE 483 else
      if la = CH_i then ADVANCE 484 else END_STATE)"

definition mozcpp_kw_361 :: "bool \<Rightarrow> codepoint \<Rightarrow> lex_case" where
  "mozcpp_kw_361 eof la = (None,
      if la = CH_n then ADVANCE 485 else END_STATE)"

definition mozcpp_kw_362 :: "bool \<Rightarrow> codepoint \<Rightarrow> lex_case" where
  "mozcpp_kw_362 eof la = (None,
      if la = CH_y then ADVANCE 486 else END_STATE)"

definition mozcpp_kw_363 :: "bool \<Rightarrow> codepoint \<Rightarrow> lex_case" where
  "mozcpp_kw_363 eof la = (None,
      if la = CH_l then ADVANCE 487 else END_STATE)"

definition mozcpp_kw_364 :: "bool \<Rightarrow> codepoint \<Rightarrow> lex_case" where
  "mozcpp_kw_364 eof la = (None,
      if la = CH_e then ADVANCE 488 else END_STATE)"

definition mozcpp_kw_365 :: "bool \<Rightarrow> codepoint \<Rightarrow> lex_case" where
  "mozcpp_kw_365 eof la = (None,
      if la = CH_e then ADVANCE 489 else END_STATE)"

definition mozcpp_kw_366 :: "bool \<Rightarrow> codepoint \<Rightarrow> lex_case" where
  "mozcpp_kw_366 eof la = (None,
      if la = CH_c then ADVANCE 490 else END_STATE)"

definition mozcpp_kw_367 :: "bool \<Rightarrow> codepoint \<Rightarrow> lex_case" where
  "mozcpp_kw_367 eof la = (None,
      if la = CH_n then ADVANCE 491 else END_STATE)"

definition mozcpp_kw_368 :: "bool \<Rightarrow> codepoint \<Rightarrow> lex_case" where
  "mozcpp_kw_368 eof la = (Some mozcpp_anon_sym_final, END_STATE)"

definition mozcpp_kw_369 :: "bool \<Rightarrow> codepoint \<Rightarrow> lex_case" where
  "mozcpp_kw_369 eof la = (None,
      if la = CH_d then ADVANCE 492 else END_STATE)"

definition mozcpp_kw_370 :: "bool \<Rightarrow> codepoint \<Rightarrow> lex_case" where
  "mozcpp_kw_370 eof la = (None,
      if la = CH_e then ADVANCE 493 else END_STATE)"

definition mozcpp_kw_371 :: "bool \<Rightarrow> codepoint \<Rightarrow> lex_case" where
  "mozcpp_kw_371 eof la = (None,
      if la = CH_l then ADVANCE 494 else END_STATE)"

definition mozcpp_kw_372 :: "bool \<Rightarrow> codepoint \<Rightarrow> lex_case" where
  "mozcpp_kw_372 eof la = (None,
      if la = CH_p then ADVANCE 495 else END_STATE)"

definition mozcpp_kw_373 :: "bool \<Rightarrow> codepoint \<Rightarrow> lex_case" where
  "mozcpp_kw_373 eof la = (None,
      if la = CH_e then ADVANCE 496 else END_STATE)"

definition mozcpp_kw_374 :: "bool \<Rightarrow> codepoint \<Rightarrow> lex_case" where
  "mozcpp_kw_374 eof la = (None,
      if la = CH_u then ADVANCE 497 else END_STATE)"

definition mozcpp_kw_375 :: "bool \<Rightarrow> codepoint \<Rightarrow> lex_case" where
  "mozcpp_kw_375 eof la = (None,
      if la = CH_q then ADVANCE 498 else END_STATE)"

definition mozcpp_kw_376 :: "bool \<Rightarrow> codepoint \<Rightarrow> lex_case" where
  "mozcpp_kw_376 eof la = (None,
      if la = CH_t then ADVANCE 499 else END_STATE)"

definition mozcpp_kw_377 :: "bool \<Rightarrow> codepoint \<Rightarrow> lex_case" where
  "mozcpp_kw_377 eof la = (None,
      if la = CH_t then ADVANCE 500 else END_STATE)"

definition mozcpp_kw_378 :: "bool \<Rightarrow> codepoint \<Rightarrow> lex_case" where
  "mozcpp_kw_378 eof la = (None,
      if la = CH_t then ADVANCE 501 else END_STATE)"

definition mozcpp_kw_379 :: "bool \<Rightarrow> codepoint \<Rightarrow> lex_case" where
  "mozcpp_kw_379 eof la = (Some mozcpp_anon_sym_or_eq, END_STATE)"

definition mozcpp_kw_380 :: "bool \<Rightarrow> codepoint \<Rightarrow> lex_case" where
  "mozcpp_kw_380 eof la = (None,
      if la = CH_i then ADVANCE 502 else END_STATE)"

definition mozcpp_kw_381 :: "bool \<Rightarrow> codepoint \<Rightarrow> lex_case" where
  "mozcpp_kw_381 eof la = (None,
      if la = CH_t then ADVANCE 503 else END_STATE)"

definition mozcpp_kw_382 :: "bool \<Rightarrow> codepoint \<Rightarrow> lex_case" where
  "mozcpp_kw_382 eof la = (None,
      if la = CH_c then ADVANCE 504 else END_STATE)"

definition mozcpp_kw_383 :: "bool \<Rightarrow> codepoint \<Rightarrow> lex_case" where
  "mozcpp_kw_383 eof la = (None,
      if la = CH_c then ADVANCE 505 else END_STATE)"

definition mozcpp_kw_384 :: "bool \<Rightarrow> codepoint \<Rightarrow> lex_case" where
  "mozcpp_kw_384 eof la = (None,
      if la = CH_t then ADVANCE 506 else END_STATE)"

definition mozcpp_kw_385 :: "bool \<Rightarrow> codepoint \<Rightarrow> lex_case" where
  "mozcpp_kw_385 eof la = (None,
      if la = CH_r then ADVANCE 507 else END_STATE)"

definition mozcpp_kw_386 :: "bool \<Rightarrow> codepoint \<Rightarrow> lex_case" where
  "mozcpp_kw_386 eof la = (None,
      if la = CH_i then ADVANCE 508 else END_STATE)"

definition mozcpp_kw_387 :: "bool \<Rightarrow> codepoint \<Rightarrow> lex_case" where
  "mozcpp_kw_387 eof la = (None,
      if la = CH_n then ADVANCE 509 else END_STATE)"

definition mozcpp_kw_388 :: "bool \<Rightarrow> codepoint \<Rightarrow> lex_case" where
  "mozcpp_kw_388 eof la = (Some mozcpp_anon_sym_short, END_STATE)"

definition mozcpp_kw_389 :: "bool \<Rightarrow> codepoint \<Rightarrow> lex_case" where
  "mozcpp_kw_389 eof la = (None,
      if la = CH_d then ADVANCE 510 else END_STATE)"

definition mozcpp_kw_390 :: "bool \<Rightarrow> codepoint \<Rightarrow> lex_case" where
  "mozcpp_kw_390 eof la = (None,
      if la = CH_f then ADVANCE 511 else END_STATE)"

definition mozcpp_kw_391 :: "bool \<Rightarrow> codepoint \<Rightarrow> lex_case" where
  "mozcpp_kw_391 eof la = (None,
      if la = CH_c then ADVANCE 512 else END_STATE)"

definition mozcpp_kw_392 :: "bool \<Rightarrow> codepoint \<Rightarrow> lex_case" where
  "mozcpp_kw_392 eof la = (None,
      if la = CH_t then ADVANCE 513 else END_STATE)"

definition mozcpp_kw_393 :: "bool \<Rightarrow> codepoint \<Rightarrow> lex_case" where
  "mozcpp_kw_393 eof la = (None,
      if la = CH_h then ADVANCE 514 else END_STATE)"

definition mozcpp_kw_394 :: "bool \<Rightarrow> codepoint \<Rightarrow> lex_case" where
  "mozcpp_kw_394 eof la = (None,
      if la = CH_a then ADVANCE 515 else END_STATE)"

definition mozcpp_kw_395 :: "bool \<Rightarrow> codepoint \<Rightarrow> lex_case" where
  "mozcpp_kw_395 eof la = (None,
      if la = CH_d then ADVANCE 516 else END_STATE)"

definition mozcpp_kw_396 :: "bool \<Rightarrow> codepoint \<Rightarrow> lex_case" where
  "mozcpp_kw_396 eof la = (Some mozcpp_anon_sym_throw, END_STATE)"

definition mozcpp_kw_397 :: "bool \<Rightarrow> codepoint \<Rightarrow> lex_case" where
  "mozcpp_kw_397 eof la = (None,
      if la = CH_e then ADVANCE 517 else END_STATE)"

definition mozcpp_kw_398 :: "bool \<Rightarrow> codepoint \<Rightarrow> lex_case" where
  "mozcpp_kw_398 eof la = (None,
      if la = CH_a then ADVANCE 518 else END_STATE)"

definition mozcpp_kw_399 :: "bool \<Rightarrow> codepoint \<Rightarrow> lex_case" where
  "mozcpp_kw_399 eof la = (Some mozcpp_anon_sym_union, END_STATE)"

definition mozcpp_kw_400 :: "bool \<Rightarrow> codepoint \<Rightarrow> lex_case" where
  "mozcpp_kw_400 eof la = (None,
      if la = CH_n then ADVANCE 519 else END_STATE)"

definition mozcpp_kw_401 :: "bool \<Rightarrow> codepoint \<Rightarrow> lex_case" where
  "mozcpp_kw_401 eof la = (Some mozcpp_anon_sym_using, END_STATE)"

definition mozcpp_kw_402 :: "bool \<Rightarrow> codepoint \<Rightarrow> lex_case" where
  "mozcpp_kw_402 eof la = (None,
      if la = CH_a then ADVANCE 520 else END_STATE)"

definition mozcpp_kw_403 :: "bool \<Rightarrow> codepoint \<Rightarrow> lex_case" where
  "mozcpp_kw_403 eof la = (None,
      if la = CH_i then ADVANCE 521 else END_STATE)"

definition mozcpp_kw_404 :: "bool \<Rightarrow> codepoint \<Rightarrow> lex_case" where
  "mozcpp_kw_404 eof la = (Some mozcpp_anon_sym_while, END_STATE)"

definition mozcpp_kw_405 :: "bool \<Rightarrow> codepoint \<Rightarrow> lex_case" where
  "mozcpp_kw_405 eof la = (None,
      if la = CH_q then ADVANCE 522 else END_STATE)"

definition mozcpp_kw_406 :: "bool \<Rightarrow> codepoint \<Rightarrow> lex_case" where
  "mozcpp_kw_406 eof la = (None,
      if la = CH_T then ADVANCE 523 else END_STATE)"

definition mozcpp_kw_407 :: "bool \<Rightarrow> codepoint \<Rightarrow> lex_case" where
  "mozcpp_kw_407 eof la = (None,
      if la = CH_D then ADVANCE 524 else END_STATE)"

definition mozcpp_kw_408 :: "bool \<Rightarrow> codepoint \<Rightarrow> lex_case" where
  "mozcpp_kw_408 eof la = (None,
      if la = CH_Y then ADVANCE 525 else END_STATE)"

definition mozcpp_kw_409 :: "bool \<Rightarrow> codepoint \<Rightarrow> lex_case" where
  "mozcpp_kw_409 eof la = (None,
      if la = CH_L then ADVANCE 526 else END_STATE)"

definition mozcpp_kw_410 :: "bool \<Rightarrow> codepoint \<Rightarrow> lex_case" where
  "mozcpp_kw_410 eof la = (None,
      if la = CH_UNDERSCORE then ADVANCE 527 else END_STATE)"

definition mozcpp_kw_411 :: "bool \<Rightarrow> codepoint \<Rightarrow> lex_case" where
  "mozcpp_kw_411 eof la = (None,
      if la = CH_L then ADVANCE 528 else
      if la = CH_W then ADVANCE 529 else END_STATE)"

definition mozcpp_kw_412 :: "bool \<Rightarrow> codepoint \<Rightarrow> lex_case" where
  "mozcpp_kw_412 eof la = (None,
      if la = CH_A then ADVANCE 530 else END_STATE)"

definition mozcpp_kw_413 :: "bool \<Rightarrow> codepoint \<Rightarrow> lex_case" where
  "mozcpp_kw_413 eof la = (None,
      if la = CH_N then ADVANCE 531 else END_STATE)"

definition mozcpp_kw_414 :: "bool \<Rightarrow> codepoint \<Rightarrow> lex_case" where
  "mozcpp_kw_414 eof la = (None,
      if la = CH_L then ADVANCE 532 else END_STATE)"

definition mozcpp_kw_415 :: "bool \<Rightarrow> codepoint \<Rightarrow> lex_case" where
  "mozcpp_kw_415 eof la = (None,
      if la = CH_C then ADVANCE 533 else END_STATE)"

definition mozcpp_kw_416 :: "bool \<Rightarrow> codepoint \<Rightarrow> lex_case" where
  "mozcpp_kw_416 eof la = (None,
      if la = CH_L then ADVANCE 534 else END_STATE)"

definition mozcpp_kw_417 :: "bool \<Rightarrow> codepoint \<Rightarrow> lex_case" where
  "mozcpp_kw_417 eof la = (None,
      if la = CH_R then ADVANCE 535 else END_STATE)"

definition mozcpp_kw_418 :: "bool \<Rightarrow> codepoint \<Rightarrow> lex_case" where
  "mozcpp_kw_418 eof la = (None,
      if la = CH_V then ADVANCE 536 else END_STATE)"

definition mozcpp_kw_419 :: "bool \<Rightarrow> codepoint \<Rightarrow> lex_case" where
  "mozcpp_kw_419 eof la = (None,
      if la = CH_A then ADVANCE 537 else END_STATE)"

definition mozcpp_kw_420 :: "bool \<Rightarrow> codepoint \<Rightarrow> lex_case" where
  "mozcpp_kw_420 eof la = (None,
      if la = CH_P then ADVANCE 538 else END_STATE)"

definition mozcpp_kw_421 :: "bool \<Rightarrow> codepoint \<Rightarrow> lex_case" where
  "mozcpp_kw_421 eof la = (None,
      if la = CH_H then ADVANCE 539 else
      if la = CH_I then ADVANCE 540 else END_STATE)"

definition mozcpp_kw_422 :: "bool \<Rightarrow> codepoint \<Rightarrow> lex_case" where
  "mozcpp_kw_422 eof la = (None,
      if la = CH_UNDERSCORE then ADVANCE 541 else END_STATE)"

definition mozcpp_kw_423 :: "bool \<Rightarrow> codepoint \<Rightarrow> lex_case" where
  "mozcpp_kw_423 eof la = (None,
      if la = CH_Y then ADVANCE 542 else END_STATE)"

definition mozcpp_kw_424 :: "bool \<Rightarrow> codepoint \<Rightarrow> lex_case" where
  "mozcpp_kw_424 eof la = (None,
      if la = CH_S then ADVANCE 543 else END_STATE)"

definition mozcpp_kw_425 :: "bool \<Rightarrow> codepoint \<Rightarrow> lex_case" where
  "mozcpp_kw_425 eof la = (None,
      if la = CH_E then ADVANCE 544 else
      if la = CH_V then ADVANCE 545 else END_STATE)"

definition mozcpp_kw_426 :: "bool \<Rightarrow> codepoint \<Rightarrow> lex_case" where
  "mozcpp_kw_426 eof la = (None,
      if la = CH_N then ADVANCE 546 else
      if la = CH_R then ADVANCE 547 else
      if la = CH_UNDERSCORE then ADVANCE 548 else END_STATE)"

definition mozcpp_kw_427 :: "bool \<Rightarrow> codepoint \<Rightarrow> lex_case" where
  "mozcpp_kw_427 eof la = (None,
      if la = CH_L then ADVANCE 549 else END_STATE)"

definition mozcpp_kw_428 :: "bool \<Rightarrow> codepoint \<Rightarrow> lex_case" where
  "mozcpp_kw_428 eof la = (None,
      if la = CH_N then ADVANCE 550 else END_STATE)"

definition mozcpp_kw_429 :: "bool \<Rightarrow> codepoint \<Rightarrow> lex_case" where
  "mozcpp_kw_429 eof la = (None,
      if la = CH_P then ADVANCE 551 else END_STATE)"

definition mozcpp_kw_430 :: "bool \<Rightarrow> codepoint \<Rightarrow> lex_case" where
  "mozcpp_kw_430 eof la = (None,
      if la = CH_E then ADVANCE 552 else END_STATE)"

definition mozcpp_kw_431 :: "bool \<Rightarrow> codepoint \<Rightarrow> lex_case" where
  "mozcpp_kw_431 eof la = (None,
      if la = CH_S then ADVANCE 553 else END_STATE)"

definition mozcpp_kw_432 :: "bool \<Rightarrow> codepoint \<Rightarrow> lex_case" where
  "mozcpp_kw_432 eof la = (None,
      if la = CH_I then ADVANCE 554 else END_STATE)"

definition mozcpp_kw_433 :: "bool \<Rightarrow> codepoint \<Rightarrow> lex_case" where
  "mozcpp_kw_433 eof la = (None,
      if la = CH_Q then ADVANCE 555 else END_STATE)"

definition mozcpp_kw_434 :: "bool \<Rightarrow> codepoint \<Rightarrow> lex_case" where
  "mozcpp_kw_434 eof la = (None,
      if la = CH_A then ADVANCE 556 else END_STATE)"

definition mozcpp_kw_435 :: "bool \<Rightarrow> codepoint \<Rightarrow> lex_case" where
  "mozcpp_kw_435 eof la = (None,
      if la = CH_M then ADVANCE 557 else END_STATE)"

definition mozcpp_kw_436 :: "bool \<Rightarrow> codepoint \<Rightarrow> lex_case" where
  "mozcpp_kw_436 eof la = (None,
      if la = CH_I then ADVANCE 558 else END_STATE)"

definition mozcpp_kw_437 :: "bool \<Rightarrow> codepoint \<Rightarrow> lex_case" where
  "mozcpp_kw_437 eof la = (None,
      if la = CH_A then ADVANCE 559 else END_STATE)"

definition mozcpp_kw_438 :: "bool \<Rightarrow> codepoint \<Rightarrow> lex_case" where
  "mozcpp_kw_438 eof la = (None,
      if la = CH_S then ADVANCE 560 else END_STATE)"

definition mozcpp_kw_439 :: "bool \<Rightarrow> codepoint \<Rightarrow> lex_case" where
  "mozcpp_kw_439 eof la = (None,
      if la = CH_C then ADVANCE 561 else END_STATE)"

definition mozcpp_kw_440 :: "bool \<Rightarrow> codepoint \<Rightarrow> lex_case" where
  "mozcpp_kw_440 eof la = (Some mozcpp_anon_sym_PS_GET,
      if la = CH_UNDERSCORE then ADVANCE 562 else END_STATE)"

definition mozcpp_kw_441 :: "bool \<Rightarrow> codepoint \<Rightarrow> lex_case" where
  "mozcpp_kw_441 eof la = (None,
      if la = CH_E then ADVANCE 563 else END_STATE)"

definition mozcpp_kw_442 :: "bool \<Rightarrow> codepoint \<Rightarrow> lex_case" where
  "mozcpp_kw_442 eof la = (None,
      if la = CH_UNDERSCORE then ADVANCE 564 else END_STATE)"

definition mozcpp_kw_443 :: "bool \<Rightarrow> codepoint \<Rightarrow> lex_case" where
  "mozcpp_kw_443 eof la = (None,
      if la = CH_N then ADVANCE 565 else END_STATE)"

definition mozcpp_kw_444 :: "bool \<Rightarrow> codepoint \<Rightarrow> lex_case" where
  "mozcpp_kw_444 eof la = (None,
      if la = CH_Y then ADVANCE 566 else END_STATE)"

definition mozcpp_kw_445 :: "bool \<Rightarrow> codepoint \<Rightarrow> lex_case" where
  "mozcpp_kw_445 eof la = (None,
      if la = CH_a then ADVANCE 567 else
      if la = CH_o then ADVANCE 568 else END_STATE)"

definition mozcpp_kw_446 :: "bool \<Rightarrow> codepoint \<Rightarrow> lex_case" where
  "mozcpp_kw_446 eof la = (None,
      if la = CH_c then ADVANCE 569 else END_STATE)"

definition mozcpp_kw_447 :: "bool \<Rightarrow> codepoint \<Rightarrow> lex_case" where
  "mozcpp_kw_447 eof la = (None,
      if la = CH_i then ADVANCE 570 else END_STATE)"

definition mozcpp_kw_448 :: "bool \<Rightarrow> codepoint \<Rightarrow> lex_case" where
  "mozcpp_kw_448 eof la = (None,
      if la = CH_l then ADVANCE 571 else END_STATE)"

definition mozcpp_kw_449 :: "bool \<Rightarrow> codepoint \<Rightarrow> lex_case" where
  "mozcpp_kw_449 eof la = (None,
      if la = CH_u then ADVANCE 572 else END_STATE)"

definition mozcpp_kw_450 :: "bool \<Rightarrow> codepoint \<Rightarrow> lex_case" where
  "mozcpp_kw_450 eof la = (None,
      if la = CH_n then ADVANCE 573 else END_STATE)"

definition mozcpp_kw_451 :: "bool \<Rightarrow> codepoint \<Rightarrow> lex_case" where
  "mozcpp_kw_451 eof la = (None,
      if la = CH_UNDERSCORE then ADVANCE 574 else END_STATE)"

definition mozcpp_kw_452 :: "bool \<Rightarrow> codepoint \<Rightarrow> lex_case" where
  "mozcpp_kw_452 eof la = (None,
      if la = CH_i then ADVANCE 575 else END_STATE)"

definition mozcpp_kw_453 :: "bool \<Rightarrow> codepoint \<Rightarrow> lex_case" where
  "mozcpp_kw_453 eof la = (None,
      if la = CH_d then ADVANCE 576 else END_STATE)"

definition mozcpp_kw_454 :: "bool \<Rightarrow> codepoint \<Rightarrow> lex_case" where
  "mozcpp_kw_454 eof la = (None,
      if la = CH_l then ADVANCE 577 else END_STATE)"

definition mozcpp_kw_455 :: "bool \<Rightarrow> codepoint \<Rightarrow> lex_case" where
  "mozcpp_kw_455 eof la = (None,
      if la = CH_a then ADVANCE 578 else END_STATE)"

definition mozcpp_kw_456 :: "bool \<Rightarrow> codepoint \<Rightarrow> lex_case" where
  "mozcpp_kw_456 eof la = (None,
      if la = CH_s then ADVANCE 579 else END_STATE)"

definition mozcpp_kw_457 :: "bool \<Rightarrow> codepoint \<Rightarrow> lex_case" where
  "mozcpp_kw_457 eof la = (None,
      if la = CH_p then ADVANCE 580 else END_STATE)"

definition mozcpp_kw_458 :: "bool \<Rightarrow> codepoint \<Rightarrow> lex_case" where
  "mozcpp_kw_458 eof la = (None,
      if la = CH_n then ADVANCE 581 else END_STATE)"

definition mozcpp_kw_459 :: "bool \<Rightarrow> codepoint \<Rightarrow> lex_case" where
  "mozcpp_kw_459 eof la = (None,
      if la = CH_c then ADVANCE 582 else END_STATE)"

definition mozcpp_kw_460 :: "bool \<Rightarrow> codepoint \<Rightarrow> lex_case" where
  "mozcpp_kw_460 eof la = (None,
      if la = CH_l then ADVANCE 583 else END_STATE)"

definition mozcpp_kw_461 :: "bool \<Rightarrow> codepoint \<Rightarrow> lex_case" where
  "mozcpp_kw_461 eof la = (None,
      if la = CH_e then ADVANCE 584 else END_STATE)"

definition mozcpp_kw_462 :: "bool \<Rightarrow> codepoint \<Rightarrow> lex_case" where
  "mozcpp_kw_462 eof la = (None,
      if la = CH_n then ADVANCE 585 else END_STATE)"

definition mozcpp_kw_463 :: "bool \<Rightarrow> codepoint \<Rightarrow> lex_case" where
  "mozcpp_kw_463 eof la = (None,
      if la = CH_e then ADVANCE 586 else END_STATE)"

definition mozcpp_kw_464 :: "bool \<Rightarrow> codepoint \<Rightarrow> lex_case" where
  "mozcpp_kw_464 eof la = (None,
      if la = CH_r then ADVANCE 587 else END_STATE)"

definition mozcpp_kw_465 :: "bool \<Rightarrow> codepoint \<Rightarrow> lex_case" where
  "mozcpp_kw_465 eof la = (Some mozcpp_sym_ms_signed_ptr_modifier, END_STATE)"

definition mozcpp_kw_466 :: "bool \<Rightarrow> codepoint \<Rightarrow> lex_case" where
  "mozcpp_kw_466 eof la = (None,
      if la = CH_a then ADVANCE 588 else END_STATE)"

definition mozcpp_kw_467 :: "bool \<Rightarrow> codepoint \<Rightarrow> lex_case" where
  "mozcpp_kw_467 eof la = (None,
      if la = CH_c then ADVANCE 589 else END_STATE)"

definition mozcpp_kw_468 :: "bool \<Rightarrow> codepoint \<Rightarrow> lex_case" where
  "mozcpp_kw_468 eof la = (None,
      if la = CH_a then ADVANCE 590 else END_STATE)"

definition mozcpp_kw_469 :: "bool \<Rightarrow> codepoint \<Rightarrow> lex_case" where
  "mozcpp_kw_469 eof la = (None,
      if la = CH_i then ADVANCE 591 else END_STATE)"

definition mozcpp_kw_470 :: "bool \<Rightarrow> codepoint \<Rightarrow> lex_case" where
  "mozcpp_kw_470 eof la = (Some mozcpp_sym_ms_unsigned_ptr_modifier, END_STATE)"

definition mozcpp_kw_471 :: "bool \<Rightarrow> codepoint \<Rightarrow> lex_case" where
  "mozcpp_kw_471 eof la = (None,
      if la = CH_o then ADVANCE 592 else END_STATE)"

definition mozcpp_kw_472 :: "bool \<Rightarrow> codepoint \<Rightarrow> lex_case" where
  "mozcpp_kw_472 eof la = (None,
      if la = CH_t then ADVANCE 593 else END_STATE)"

definition mozcpp_kw_473 :: "bool \<Rightarrow> codepoint \<Rightarrow> lex_case" where
  "mozcpp_kw_473 eof la = (None,
      if la = CH_o then ADVANCE 594 else END_STATE)"

definition mozcpp_kw_474 :: "bool \<Rightarrow> codepoint \<Rightarrow> lex_case" where
  "mozcpp_kw_474 eof la = (None,
      if la = CH_g then ADVANCE 595 else END_STATE)"

definition mozcpp_kw_475 :: "bool \<Rightarrow> codepoint \<Rightarrow> lex_case" where
  "mozcpp_kw_475 eof la = (None,
      if la = CH_s then ADVANCE 596 else END_STATE)"

definition mozcpp_kw_476 :: "bool \<Rightarrow> codepoint \<Rightarrow> lex_case" where
  "mozcpp_kw_476 eof la = (None,
      if la = CH_f then ADVANCE 597 else END_STATE)"

definition mozcpp_kw_477 :: "bool \<Rightarrow> codepoint \<Rightarrow> lex_case" where
  "mozcpp_kw_477 eof la = (Some mozcpp_anon_sym_and_eq, END_STATE)"

definition mozcpp_kw_478 :: "bool \<Rightarrow> codepoint \<Rightarrow> lex_case" where
  "mozcpp_kw_478 eof la = (Some mozcpp_anon_sym_bitand, END_STATE)"

definition mozcpp_kw_479 :: "bool \<Rightarrow> codepoint \<Rightarrow> lex_case" where
  "mozcpp_kw_479 eof la = (None,
      if la = CH_i then ADVANCE 598 else END_STATE)"

definition mozcpp_kw_480 :: "bool \<Rightarrow> codepoint \<Rightarrow> lex_case" where
  "mozcpp_kw_480 eof la = (None,
      if la = CH_u then ADVANCE 599 else END_STATE)"

definition mozcpp_kw_481 :: "bool \<Rightarrow> codepoint \<Rightarrow> lex_case" where
  "mozcpp_kw_481 eof la = (None,
      if la = CH_l then ADVANCE 600 else END_STATE)"

definition mozcpp_kw_482 :: "bool \<Rightarrow> codepoint \<Rightarrow> lex_case" where
  "mozcpp_kw_482 eof la = (None,
      if la = CH_t then ADVANCE 601 else END_STATE)"

definition mozcpp_kw_483 :: "bool \<Rightarrow> codepoint \<Rightarrow> lex_case" where
  "mozcpp_kw_483 eof la = (None,
      if la = CH_v then ADVANCE 602 else
      if la = CH_x then ADVANCE 603 else END_STATE)"

definition mozcpp_kw_484 :: "bool \<Rightarrow> codepoint \<Rightarrow> lex_case" where
  "mozcpp_kw_484 eof la = (None,
      if la = CH_n then ADVANCE 604 else END_STATE)"

definition mozcpp_kw_485 :: "bool \<Rightarrow> codepoint \<Rightarrow> lex_case" where
  "mozcpp_kw_485 eof la = (None,
      if la = CH_u then ADVANCE 605 else END_STATE)"

definition mozcpp_kw_486 :: "bool \<Rightarrow> codepoint \<Rightarrow> lex_case" where
  "mozcpp_kw_486 eof la = (None,
      if la = CH_p then ADVANCE 606 else END_STATE)"

definition mozcpp_kw_487 :: "bool \<Rightarrow> codepoint \<Rightarrow> lex_case" where
  "mozcpp_kw_487 eof la = (None,
      if la = CH_t then ADVANCE 607 else END_STATE)"

definition mozcpp_kw_488 :: "bool \<Rightarrow> codepoint \<Rightarrow> lex_case" where
  "mozcpp_kw_488 eof la = (None,
      if la = CH_d then ADVANCE 608 else END_STATE)"

definition mozcpp_kw_489 :: "bool \<Rightarrow> codepoint \<Rightarrow> lex_case" where
  "mozcpp_kw_489 eof la = (Some mozcpp_anon_sym_delete, END_STATE)"

definition mozcpp_kw_490 :: "bool \<Rightarrow> codepoint \<Rightarrow> lex_case" where
  "mozcpp_kw_490 eof la = (None,
      if la = CH_i then ADVANCE 609 else END_STATE)"

definition mozcpp_kw_491 :: "bool \<Rightarrow> codepoint \<Rightarrow> lex_case" where
  "mozcpp_kw_491 eof la = (Some mozcpp_anon_sym_extern, END_STATE)"

definition mozcpp_kw_492 :: "bool \<Rightarrow> codepoint \<Rightarrow> lex_case" where
  "mozcpp_kw_492 eof la = (Some mozcpp_anon_sym_friend, END_STATE)"

definition mozcpp_kw_493 :: "bool \<Rightarrow> codepoint \<Rightarrow> lex_case" where
  "mozcpp_kw_493 eof la = (Some mozcpp_anon_sym_inline, END_STATE)"

definition mozcpp_kw_494 :: "bool \<Rightarrow> codepoint \<Rightarrow> lex_case" where
  "mozcpp_kw_494 eof la = (None,
      if la = CH_e then ADVANCE 610 else END_STATE)"

definition mozcpp_kw_495 :: "bool \<Rightarrow> codepoint \<Rightarrow> lex_case" where
  "mozcpp_kw_495 eof la = (None,
      if la = CH_a then ADVANCE 611 else END_STATE)"

definition mozcpp_kw_496 :: "bool \<Rightarrow> codepoint \<Rightarrow> lex_case" where
  "mozcpp_kw_496 eof la = (None,
      if la = CH_p then ADVANCE 612 else END_STATE)"

definition mozcpp_kw_497 :: "bool \<Rightarrow> codepoint \<Rightarrow> lex_case" where
  "mozcpp_kw_497 eof la = (None,
      if la = CH_r then ADVANCE 613 else END_STATE)"

definition mozcpp_kw_498 :: "bool \<Rightarrow> codepoint \<Rightarrow> lex_case" where
  "mozcpp_kw_498 eof la = (Some mozcpp_anon_sym_not_eq, END_STATE)"

definition mozcpp_kw_499 :: "bool \<Rightarrow> codepoint \<Rightarrow> lex_case" where
  "mozcpp_kw_499 eof la = (None,
      if la = CH_r then ADVANCE 614 else END_STATE)"

definition mozcpp_kw_500 :: "bool \<Rightarrow> codepoint \<Rightarrow> lex_case" where
  "mozcpp_kw_500 eof la = (None,
      if la = CH_o then ADVANCE 615 else END_STATE)"

definition mozcpp_kw_501 :: "bool \<Rightarrow> codepoint \<Rightarrow> lex_case" where
  "mozcpp_kw_501 eof la = (None,
      if la = CH_o then ADVANCE 616 else END_STATE)"

definition mozcpp_kw_502 :: "bool \<Rightarrow> codepoint \<Rightarrow> lex_case" where
  "mozcpp_kw_502 eof la = (None,
      if la = CH_d then ADVANCE 617 else END_STATE)"

definition mozcpp_kw_503 :: "bool \<Rightarrow> codepoint \<Rightarrow> lex_case" where
  "mozcpp_kw_503 eof la = (None,
      if la = CH_e then ADVANCE 618 else END_STATE)"

definition mozcpp_kw_504 :: "bool \<Rightarrow> codepoint \<Rightarrow> lex_case" where
  "mozcpp_kw_504 eof la = (None,
      if la = CH_t then ADVANCE 619 else END_STATE)"

definition mozcpp_kw_505 :: "bool \<Rightarrow> codepoint \<Rightarrow> lex_case" where
  "mozcpp_kw_505 eof la = (Some mozcpp_anon_sym_public, END_STATE)"

definition mozcpp_kw_506 :: "bool \<Rightarrow> codepoint \<Rightarrow> lex_case" where
  "mozcpp_kw_506 eof la = (None,
      if la = CH_e then ADVANCE 620 else END_STATE)"

definition mozcpp_kw_507 :: "bool \<Rightarrow> codepoint \<Rightarrow> lex_case" where
  "mozcpp_kw_507 eof la = (None,
      if la = CH_e then ADVANCE 621 else END_STATE)"

definition mozcpp_kw_508 :: "bool \<Rightarrow> codepoint \<Rightarrow> lex_case" where
  "mozcpp_kw_508 eof la = (None,
      if la = CH_c then ADVANCE 622 else END_STATE)"

definition mozcpp_kw_509 :: "bool \<Rightarrow> codepoint \<Rightarrow> lex_case" where
  "mozcpp_kw_509 eof la = (Some mozcpp_anon_sym_return, END_STATE)"

definition mozcpp_kw_510 :: "bool \<Rightarrow> codepoint \<Rightarrow> lex_case" where
  "mozcpp_kw_510 eof la = (Some mozcpp_anon_sym_signed, END_STATE)"

definition mozcpp_kw_511 :: "bool \<Rightarrow> codepoint \<Rightarrow> lex_case" where
  "mozcpp_kw_511 eof la = (Some mozcpp_anon_sym_sizeof, END_STATE)"

definition mozcpp_kw_512 :: "bool \<Rightarrow> codepoint \<Rightarrow> lex_case" where
  "mozcpp_kw_512 eof la = (Some mozcpp_anon_sym_static,
      if la = CH_UNDERSCORE then ADVANCE 623 else END_STATE)"

definition mozcpp_kw_513 :: "bool \<Rightarrow> codepoint \<Rightarrow> lex_case" where
  "mozcpp_kw_513 eof la = (Some mozcpp_anon_sym_struct, END_STATE)"

definition mozcpp_kw_514 :: "bool \<Rightarrow> codepoint \<Rightarrow> lex_case" where
  "mozcpp_kw_514 eof la = (Some mozcpp_anon_sym_switch, END_STATE)"

definition mozcpp_kw_515 :: "bool \<Rightarrow> codepoint \<Rightarrow> lex_case" where
  "mozcpp_kw_515 eof la = (None,
      if la = CH_t then ADVANCE 624 else END_STATE)"

definition mozcpp_kw_516 :: "bool \<Rightarrow> codepoint \<Rightarrow> lex_case" where
  "mozcpp_kw_516 eof la = (None,
      if la = CH_UNDERSCORE then ADVANCE 625 else END_STATE)"

definition mozcpp_kw_517 :: "bool \<Rightarrow> codepoint \<Rightarrow> lex_case" where
  "mozcpp_kw_517 eof la = (None,
      if la = CH_f then ADVANCE 626 else END_STATE)"

definition mozcpp_kw_518 :: "bool \<Rightarrow> codepoint \<Rightarrow> lex_case" where
  "mozcpp_kw_518 eof la = (None,
      if la = CH_m then ADVANCE 627 else END_STATE)"

definition mozcpp_kw_519 :: "bool \<Rightarrow> codepoint \<Rightarrow> lex_case" where
  "mozcpp_kw_519 eof la = (None,
      if la = CH_e then ADVANCE 628 else END_STATE)"

definition mozcpp_kw_520 :: "bool \<Rightarrow> codepoint \<Rightarrow> lex_case" where
  "mozcpp_kw_520 eof la = (None,
      if la = CH_l then ADVANCE 629 else END_STATE)"

definition mozcpp_kw_521 :: "bool \<Rightarrow> codepoint \<Rightarrow> lex_case" where
  "mozcpp_kw_521 eof la = (None,
      if la = CH_l then ADVANCE 630 else END_STATE)"

definition mozcpp_kw_522 :: "bool \<Rightarrow> codepoint \<Rightarrow> lex_case" where
  "mozcpp_kw_522 eof la = (Some mozcpp_anon_sym_xor_eq, END_STATE)"

definition mozcpp_kw_523 :: "bool \<Rightarrow> codepoint \<Rightarrow> lex_case" where
  "mozcpp_kw_523 eof la = (None,
      if la = CH_R then ADVANCE 631 else END_STATE)"

definition mozcpp_kw_524 :: "bool \<Rightarrow> codepoint \<Rightarrow> lex_case" where
  "mozcpp_kw_524 eof la = (Some mozcpp_anon_sym_FORWARD,
      if la = CH_UNDERSCORE then ADVANCE 632 else END_STATE)"

definition mozcpp_kw_525 :: "bool \<Rightarrow> codepoint \<Rightarrow> lex_case" where
  "mozcpp_kw_525 eof la = (None,
      if la = CH_UNDERSCORE then ADVANCE 633 else END_STATE)"

definition mozcpp_kw_526 :: "bool \<Rightarrow> codepoint \<Rightarrow> lex_case" where
  "mozcpp_kw_526 eof la = (None,
      if la = CH_I then ADVANCE 634 else END_STATE)"

definition mozcpp_kw_527 :: "bool \<Rightarrow> codepoint \<Rightarrow> lex_case" where
  "mozcpp_kw_527 eof la = (None,
      if la = CH_I then ADVANCE 635 else
      if la = CH_U then ADVANCE 636 else END_STATE)"

definition mozcpp_kw_528 :: "bool \<Rightarrow> codepoint \<Rightarrow> lex_case" where
  "mozcpp_kw_528 eof la = (None,
      if la = CH_O then ADVANCE 637 else END_STATE)"

definition mozcpp_kw_529 :: "bool \<Rightarrow> codepoint \<Rightarrow> lex_case" where
  "mozcpp_kw_529 eof la = (None,
      if la = CH_A then ADVANCE 638 else END_STATE)"

definition mozcpp_kw_530 :: "bool \<Rightarrow> codepoint \<Rightarrow> lex_case" where
  "mozcpp_kw_530 eof la = (None,
      if la = CH_N then ADVANCE 639 else END_STATE)"

definition mozcpp_kw_531 :: "bool \<Rightarrow> codepoint \<Rightarrow> lex_case" where
  "mozcpp_kw_531 eof la = (None,
      if la = CH_UNDERSCORE then ADVANCE 640 else END_STATE)"

definition mozcpp_kw_532 :: "bool \<Rightarrow> codepoint \<Rightarrow> lex_case" where
  "mozcpp_kw_532 eof la = (None,
      if la = CH_D then ADVANCE 641 else END_STATE)"

definition mozcpp_kw_533 :: "bool \<Rightarrow> codepoint \<Rightarrow> lex_case" where
  "mozcpp_kw_533 eof la = (None,
      if la = CH_L then ADVANCE 642 else END_STATE)"

definition mozcpp_kw_534 :: "bool \<Rightarrow> codepoint \<Rightarrow> lex_case" where
  "mozcpp_kw_534 eof la = (None,
      if la = CH_L then ADVANCE 643 else END_STATE)"

definition mozcpp_kw_535 :: "bool \<Rightarrow> codepoint \<Rightarrow> lex_case" where
  "mozcpp_kw_535 eof la = (None,
      if la = CH_M then ADVANCE 644 else END_STATE)"

definition mozcpp_kw_536 :: "bool \<Rightarrow> codepoint \<Rightarrow> lex_case" where
  "mozcpp_kw_536 eof la = (None,
      if la = CH_E then ADVANCE 645 else END_STATE)"

definition mozcpp_kw_537 :: "bool \<Rightarrow> codepoint \<Rightarrow> lex_case" where
  "mozcpp_kw_537 eof la = (None,
      if la = CH_P then ADVANCE 646 else END_STATE)"

definition mozcpp_kw_538 :: "bool \<Rightarrow> codepoint \<Rightarrow> lex_case" where
  "mozcpp_kw_538 eof la = (None,
      if la = CH_L then ADVANCE 647 else END_STATE)"

definition mozcpp_kw_539 :: "bool \<Rightarrow> codepoint \<Rightarrow> lex_case" where
  "mozcpp_kw_539 eof la = (None,
      if la = CH_E then ADVANCE 648 else END_STATE)"

definition mozcpp_kw_540 :: "bool \<Rightarrow> codepoint \<Rightarrow> lex_case" where
  "mozcpp_kw_540 eof la = (None,
      if la = CH_T then ADVANCE 649 else END_STATE)"

definition mozcpp_kw_541 :: "bool \<Rightarrow> codepoint \<Rightarrow> lex_case" where
  "mozcpp_kw_541 eof la = (None,
      if la = CH_C then ADVANCE 650 else
      if la = CH_R then ADVANCE 651 else
      if la = CH_S then ADVANCE 652 else END_STATE)"

definition mozcpp_kw_542 :: "bool \<Rightarrow> codepoint \<Rightarrow> lex_case" where
  "mozcpp_kw_542 eof la = (None,
      if la = CH_B then ADVANCE 653 else
      if la = CH_UNDERSCORE then ADVANCE 654 else END_STATE)"

definition mozcpp_kw_543 :: "bool \<Rightarrow> codepoint \<Rightarrow> lex_case" where
  "mozcpp_kw_543 eof la = (None,
      if la = CH_T then ADVANCE 655 else END_STATE)"

definition mozcpp_kw_544 :: "bool \<Rightarrow> codepoint \<Rightarrow> lex_case" where
  "mozcpp_kw_544 eof la = (None,
      if la = CH_D then ADVANCE 656 else END_STATE)"

definition mozcpp_kw_545 :: "bool \<Rightarrow> codepoint \<Rightarrow> lex_case" where
  "mozcpp_kw_545 eof la = (None,
      if la = CH_E then ADVANCE 657 else END_STATE)"

definition mozcpp_kw_546 :: "bool \<Rightarrow> codepoint \<Rightarrow> lex_case" where
  "mozcpp_kw_546 eof la = (None,
      if la = CH_H then ADVANCE 658 else
      if la = CH_N then ADVANCE 659 else
      if la = CH_UNDERSCORE then ADVANCE 660 else END_STATE)"

definition mozcpp_kw_547 :: "bool \<Rightarrow> codepoint \<Rightarrow> lex_case" where
  "mozcpp_kw_547 eof la = (None,
      if la = CH_E then ADVANCE 661 else END_STATE)"

definition mozcpp_kw_548 :: "bool \<Rightarrow> codepoint \<Rightarrow> lex_case" where
  "mozcpp_kw_548 eof la = (None,
      if la = CH_A then ADVANCE 662 else
      if la = CH_D then ADVANCE 663 else
      if la = CH_S then ADVANCE 664 else END_STATE)"

definition mozcpp_kw_549 :: "bool \<Rightarrow> codepoint \<Rightarrow> lex_case" where
  "mozcpp_kw_549 eof la = (None,
      if la = CH_Y then ADVANCE 665 else END_STATE)"

definition mozcpp_kw_550 :: "bool \<Rightarrow> codepoint \<Rightarrow> lex_case" where
  "mozcpp_kw_550 eof la = (None,
      if la = CH_I then ADVANCE 666 else END_STATE)"

definition mozcpp_kw_551 :: "bool \<Rightarrow> codepoint \<Rightarrow> lex_case" where
  "mozcpp_kw_551 eof la = (None,
      if la = CH_UNDERSCORE then ADVANCE 667 else END_STATE)"

definition mozcpp_kw_552 :: "bool \<Rightarrow> codepoint \<Rightarrow> lex_case" where
  "mozcpp_kw_552 eof la = (None,
      if la = CH_T then ADVANCE 668 else END_STATE)"

definition mozcpp_kw_553 :: "bool \<Rightarrow> codepoint \<Rightarrow> lex_case" where
  "mozcpp_kw_553 eof la = (None,
      if la = CH_H then ADVANCE 669 else END_STATE)"

definition mozcpp_kw_554 :: "bool \<Rightarrow> codepoint \<Rightarrow> lex_case" where
  "mozcpp_kw_554 eof la = (None,
      if la = CH_I then ADVANCE 670 else END_STATE)"

definition mozcpp_kw_555 :: "bool \<Rightarrow> codepoint \<Rightarrow> lex_case" where
  "mozcpp_kw_555 eof la = (None,
      if la = CH_U then ADVANCE 671 else END_STATE)"

definition mozcpp_kw_556 :: "bool \<Rightarrow> codepoint \<Rightarrow> lex_case" where
  "mozcpp_kw_556 eof la = (None,
      if la = CH_C then ADVANCE 672 else
      if la = CH_T then ADVANCE 673 else END_STATE)"

definition mozcpp_kw_557 :: "bool \<Rightarrow> codepoint \<Rightarrow> lex_case" where
  "mozcpp_kw_557 eof la = (None,
      if la = CH_P then ADVANCE 674 else END_STATE)"

definition mozcpp_kw_558 :: "bool \<Rightarrow> codepoint \<Rightarrow> lex_case" where
  "mozcpp_kw_558 eof la = (None,
      if la = CH_V then ADVANCE 675 else END_STATE)"

definition mozcpp_kw_559 :: "bool \<Rightarrow> codepoint \<Rightarrow> lex_case" where
  "mozcpp_kw_559 eof la = (None,
      if la = CH_N then ADVANCE 676 else END_STATE)"

definition mozcpp_kw_560 :: "bool \<Rightarrow> codepoint \<Rightarrow> lex_case" where
  "mozcpp_kw_560 eof la = (None,
      if la = CH_A then ADVANCE 677 else END_STATE)"

definition mozcpp_kw_561 :: "bool \<Rightarrow> codepoint \<Rightarrow> lex_case" where
  "mozcpp_kw_561 eof la = (None,
      if la = CH_O then ADVANCE 678 else END_STATE)"

definition mozcpp_kw_562 :: "bool \<Rightarrow> codepoint \<Rightarrow> lex_case" where
  "mozcpp_kw_562 eof la = (None,
      if la = CH_A then ADVANCE 679 else
      if la = CH_L then ADVANCE 680 else END_STATE)"

definition mozcpp_kw_563 :: "bool \<Rightarrow> codepoint \<Rightarrow> lex_case" where
  "mozcpp_kw_563 eof la = (None,
      if la = CH_O then ADVANCE 681 else END_STATE)"

definition mozcpp_kw_564 :: "bool \<Rightarrow> codepoint \<Rightarrow> lex_case" where
  "mozcpp_kw_564 eof la = (None,
      if la = CH_I then ADVANCE 682 else
      if la = CH_U then ADVANCE 683 else END_STATE)"

definition mozcpp_kw_565 :: "bool \<Rightarrow> codepoint \<Rightarrow> lex_case" where
  "mozcpp_kw_565 eof la = (None,
      if la = CH_O then ADVANCE 684 else END_STATE)"

definition mozcpp_kw_566 :: "bool \<Rightarrow> codepoint \<Rightarrow> lex_case" where
  "mozcpp_kw_566 eof la = (None,
      if la = CH_UNDERSCORE then ADVANCE 685 else END_STATE)"

definition mozcpp_kw_567 :: "bool \<Rightarrow> codepoint \<Rightarrow> lex_case" where
  "mozcpp_kw_567 eof la = (None,
      if la = CH_s then ADVANCE 686 else END_STATE)"

definition mozcpp_kw_568 :: "bool \<Rightarrow> codepoint \<Rightarrow> lex_case" where
  "mozcpp_kw_568 eof la = (None,
      if la = CH_f then ADVANCE 687 else END_STATE)"

definition mozcpp_kw_569 :: "bool \<Rightarrow> codepoint \<Rightarrow> lex_case" where
  "mozcpp_kw_569 eof la = (Some mozcpp_anon_sym__Atomic, END_STATE)"

definition mozcpp_kw_570 :: "bool \<Rightarrow> codepoint \<Rightarrow> lex_case" where
  "mozcpp_kw_570 eof la = (None,
      if la = CH_c then ADVANCE 688 else END_STATE)"

definition mozcpp_kw_571 :: "bool \<Rightarrow> codepoint \<Rightarrow> lex_case" where
  "mozcpp_kw_571 eof la = (None,
      if la = CH_l then ADVANCE 689 else END_STATE)"

definition mozcpp_kw_572 :: "bool \<Rightarrow> codepoint \<Rightarrow> lex_case" where
  "mozcpp_kw_572 eof la = (None,
      if la = CH_r then ADVANCE 690 else END_STATE)"

definition mozcpp_kw_573 :: "bool \<Rightarrow> codepoint \<Rightarrow> lex_case" where
  "mozcpp_kw_573 eof la = (None,
      if la = CH_o then ADVANCE 691 else END_STATE)"

definition mozcpp_kw_574 :: "bool \<Rightarrow> codepoint \<Rightarrow> lex_case" where
  "mozcpp_kw_574 eof la = (Some mozcpp_anon_sym___asm__u, END_STATE)"

definition mozcpp_kw_575 :: "bool \<Rightarrow> codepoint \<Rightarrow> lex_case" where
  "mozcpp_kw_575 eof la = (None,
      if la = CH_b then ADVANCE 692 else END_STATE)"

definition mozcpp_kw_576 :: "bool \<Rightarrow> codepoint \<Rightarrow> lex_case" where
  "mozcpp_kw_576 eof la = (Some mozcpp_anon_sym___based, END_STATE)"

definition mozcpp_kw_577 :: "bool \<Rightarrow> codepoint \<Rightarrow> lex_case" where
  "mozcpp_kw_577 eof la = (Some mozcpp_anon_sym___cdecl, END_STATE)"

definition mozcpp_kw_578 :: "bool \<Rightarrow> codepoint \<Rightarrow> lex_case" where
  "mozcpp_kw_578 eof la = (None,
      if la = CH_l then ADVANCE 693 else END_STATE)"

definition mozcpp_kw_579 :: "bool \<Rightarrow> codepoint \<Rightarrow> lex_case" where
  "mozcpp_kw_579 eof la = (None,
      if la = CH_p then ADVANCE 694 else END_STATE)"

definition mozcpp_kw_580 :: "bool \<Rightarrow> codepoint \<Rightarrow> lex_case" where
  "mozcpp_kw_580 eof la = (None,
      if la = CH_t then ADVANCE 695 else END_STATE)"

definition mozcpp_kw_581 :: "bool \<Rightarrow> codepoint \<Rightarrow> lex_case" where
  "mozcpp_kw_581 eof la = (None,
      if la = CH_s then ADVANCE 696 else END_STATE)"

definition mozcpp_kw_582 :: "bool \<Rightarrow> codepoint \<Rightarrow> lex_case" where
  "mozcpp_kw_582 eof la = (None,
      if la = CH_a then ADVANCE 697 else END_STATE)"

definition mozcpp_kw_583 :: "bool \<Rightarrow> codepoint \<Rightarrow> lex_case" where
  "mozcpp_kw_583 eof la = (None,
      if la = CH_l then ADVANCE 698 else END_STATE)"

definition mozcpp_kw_584 :: "bool \<Rightarrow> codepoint \<Rightarrow> lex_case" where
  "mozcpp_kw_584 eof la = (None,
      if la = CH_i then ADVANCE 699 else END_STATE)"

definition mozcpp_kw_585 :: "bool \<Rightarrow> codepoint \<Rightarrow> lex_case" where
  "mozcpp_kw_585 eof la = (None,
      if la = CH_e then ADVANCE 700 else END_STATE)"

definition mozcpp_kw_586 :: "bool \<Rightarrow> codepoint \<Rightarrow> lex_case" where
  "mozcpp_kw_586 eof la = (Some mozcpp_anon_sym___leave, END_STATE)"

definition mozcpp_kw_587 :: "bool \<Rightarrow> codepoint \<Rightarrow> lex_case" where
  "mozcpp_kw_587 eof la = (None,
      if la = CH_i then ADVANCE 701 else END_STATE)"

definition mozcpp_kw_588 :: "bool \<Rightarrow> codepoint \<Rightarrow> lex_case" where
  "mozcpp_kw_588 eof la = (None,
      if la = CH_l then ADVANCE 702 else END_STATE)"

definition mozcpp_kw_589 :: "bool \<Rightarrow> codepoint \<Rightarrow> lex_case" where
  "mozcpp_kw_589 eof la = (None,
      if la = CH_a then ADVANCE 703 else END_STATE)"

definition mozcpp_kw_590 :: "bool \<Rightarrow> codepoint \<Rightarrow> lex_case" where
  "mozcpp_kw_590 eof la = (None,
      if la = CH_d then ADVANCE 704 else END_STATE)"

definition mozcpp_kw_591 :: "bool \<Rightarrow> codepoint \<Rightarrow> lex_case" where
  "mozcpp_kw_591 eof la = (None,
      if la = CH_g then ADVANCE 705 else END_STATE)"

definition mozcpp_kw_592 :: "bool \<Rightarrow> codepoint \<Rightarrow> lex_case" where
  "mozcpp_kw_592 eof la = (None,
      if la = CH_r then ADVANCE 706 else END_STATE)"

definition mozcpp_kw_593 :: "bool \<Rightarrow> codepoint \<Rightarrow> lex_case" where
  "mozcpp_kw_593 eof la = (None,
      if la = CH_i then ADVANCE 707 else END_STATE)"

definition mozcpp_kw_594 :: "bool \<Rightarrow> codepoint \<Rightarrow> lex_case" where
  "mozcpp_kw_594 eof la = (None,
      if la = CH_f then ADVANCE 708 else END_STATE)"

definition mozcpp_kw_595 :: "bool \<Rightarrow> codepoint \<Rightarrow> lex_case" where
  "mozcpp_kw_595 eof la = (None,
      if la = CH_n then ADVANCE 709 else END_STATE)"

definition mozcpp_kw_596 :: "bool \<Rightarrow> codepoint \<Rightarrow> lex_case" where
  "mozcpp_kw_596 eof la = (Some mozcpp_anon_sym_alignas, END_STATE)"

definition mozcpp_kw_597 :: "bool \<Rightarrow> codepoint \<Rightarrow> lex_case" where
  "mozcpp_kw_597 eof la = (Some mozcpp_anon_sym_alignof, END_STATE)"

definition mozcpp_kw_598 :: "bool \<Rightarrow> codepoint \<Rightarrow> lex_case" where
  "mozcpp_kw_598 eof la = (None,
      if la = CH_t then ADVANCE 710 else END_STATE)"

definition mozcpp_kw_599 :: "bool \<Rightarrow> codepoint \<Rightarrow> lex_case" where
  "mozcpp_kw_599 eof la = (None,
      if la = CH_r then ADVANCE 711 else END_STATE)"

definition mozcpp_kw_600 :: "bool \<Rightarrow> codepoint \<Rightarrow> lex_case" where
  "mozcpp_kw_600 eof la = (None,
      if la = CH_d then ADVANCE 712 else END_STATE)"

definition mozcpp_kw_601 :: "bool \<Rightarrow> codepoint \<Rightarrow> lex_case" where
  "mozcpp_kw_601 eof la = (Some mozcpp_anon_sym_concept, END_STATE)"

definition mozcpp_kw_602 :: "bool \<Rightarrow> codepoint \<Rightarrow> lex_case" where
  "mozcpp_kw_602 eof la = (None,
      if la = CH_a then ADVANCE 713 else END_STATE)"

definition mozcpp_kw_603 :: "bool \<Rightarrow> codepoint \<Rightarrow> lex_case" where
  "mozcpp_kw_603 eof la = (None,
      if la = CH_p then ADVANCE 714 else END_STATE)"

definition mozcpp_kw_604 :: "bool \<Rightarrow> codepoint \<Rightarrow> lex_case" where
  "mozcpp_kw_604 eof la = (None,
      if la = CH_i then ADVANCE 715 else END_STATE)"

definition mozcpp_kw_605 :: "bool \<Rightarrow> codepoint \<Rightarrow> lex_case" where
  "mozcpp_kw_605 eof la = (None,
      if la = CH_e then ADVANCE 716 else END_STATE)"

definition mozcpp_kw_606 :: "bool \<Rightarrow> codepoint \<Rightarrow> lex_case" where
  "mozcpp_kw_606 eof la = (None,
      if la = CH_e then ADVANCE 717 else END_STATE)"

definition mozcpp_kw_607 :: "bool \<Rightarrow> codepoint \<Rightarrow> lex_case" where
  "mozcpp_kw_607 eof la = (Some mozcpp_anon_sym_default, END_STATE)"

definition mozcpp_kw_608 :: "bool \<Rightarrow> codepoint \<Rightarrow> lex_case" where
  "mozcpp_kw_608 eof la = (Some mozcpp_anon_sym_defined, END_STATE)"

definition mozcpp_kw_609 :: "bool \<Rightarrow> codepoint \<Rightarrow> lex_case" where
  "mozcpp_kw_609 eof la = (None,
      if la = CH_t then ADVANCE 718 else END_STATE)"

definition mozcpp_kw_610 :: "bool \<Rightarrow> codepoint \<Rightarrow> lex_case" where
  "mozcpp_kw_610 eof la = (Some mozcpp_anon_sym_mutable, END_STATE)"

definition mozcpp_kw_611 :: "bool \<Rightarrow> codepoint \<Rightarrow> lex_case" where
  "mozcpp_kw_611 eof la = (None,
      if la = CH_c then ADVANCE 719 else END_STATE)"

definition mozcpp_kw_612 :: "bool \<Rightarrow> codepoint \<Rightarrow> lex_case" where
  "mozcpp_kw_612 eof la = (None,
      if la = CH_t then ADVANCE 720 else END_STATE)"

definition mozcpp_kw_613 :: "bool \<Rightarrow> codepoint \<Rightarrow> lex_case" where
  "mozcpp_kw_613 eof la = (None,
      if la = CH_n then ADVANCE 721 else END_STATE)"

definition mozcpp_kw_614 :: "bool \<Rightarrow> codepoint \<Rightarrow> lex_case" where
  "mozcpp_kw_614 eof la = (Some mozcpp_anon_sym_nullptr, END_STATE)"

definition mozcpp_kw_615 :: "bool \<Rightarrow> codepoint \<Rightarrow> lex_case" where
  "mozcpp_kw_615 eof la = (None,
      if la = CH_f then ADVANCE 722 else END_STATE)"

definition mozcpp_kw_616 :: "bool \<Rightarrow> codepoint \<Rightarrow> lex_case" where
  "mozcpp_kw_616 eof la = (None,
      if la = CH_r then ADVANCE 723 else END_STATE)"

definition mozcpp_kw_617 :: "bool \<Rightarrow> codepoint \<Rightarrow> lex_case" where
  "mozcpp_kw_617 eof la = (None,
      if la = CH_e then ADVANCE 724 else END_STATE)"

definition mozcpp_kw_618 :: "bool \<Rightarrow> codepoint \<Rightarrow> lex_case" where
  "mozcpp_kw_618 eof la = (Some mozcpp_anon_sym_private, END_STATE)"

definition mozcpp_kw_619 :: "bool \<Rightarrow> codepoint \<Rightarrow> lex_case" where
  "mozcpp_kw_619 eof la = (None,
      if la = CH_e then ADVANCE 725 else END_STATE)"

definition mozcpp_kw_620 :: "bool \<Rightarrow> codepoint \<Rightarrow> lex_case" where
  "mozcpp_kw_620 eof la = (None,
      if la = CH_r then ADVANCE 726 else END_STATE)"

definition mozcpp_kw_621 :: "bool \<Rightarrow> codepoint \<Rightarrow> lex_case" where
  "mozcpp_kw_621 eof la = (None,
      if la = CH_s then ADVANCE 727 else END_STATE)"

definition mozcpp_kw_622 :: "bool \<Rightarrow> codepoint \<Rightarrow> lex_case" where
  "mozcpp_kw_622 eof la = (None,
      if la = CH_t then ADVANCE 728 else END_STATE)"

definition mozcpp_kw_623 :: "bool \<Rightarrow> codepoint \<Rightarrow> lex_case" where
  "mozcpp_kw_623 eof la = (None,
      if la = CH_a then ADVANCE 729 else END_STATE)"

definition mozcpp_kw_624 :: "bool \<Rightarrow> codepoint \<Rightarrow> lex_case" where
  "mozcpp_kw_624 eof la = (None,
      if la = CH_e then ADVANCE 730 else END_STATE)"

definition mozcpp_kw_625 :: "bool \<Rightarrow> codepoint \<Rightarrow> lex_case" where
  "mozcpp_kw_625 eof la = (None,
      if la = CH_l then ADVANCE 731 else END_STATE)"

definition mozcpp_kw_626 :: "bool \<Rightarrow> codepoint \<Rightarrow> lex_case" where
  "mozcpp_kw_626 eof la = (Some mozcpp_anon_sym_typedef, END_STATE)"

definition mozcpp_kw_627 :: "bool \<Rightarrow> codepoint \<Rightarrow> lex_case" where
  "mozcpp_kw_627 eof la = (None,
      if la = CH_e then ADVANCE 732 else END_STATE)"

definition mozcpp_kw_628 :: "bool \<Rightarrow> codepoint \<Rightarrow> lex_case" where
  "mozcpp_kw_628 eof la = (None,
      if la = CH_d then ADVANCE 733 else END_STATE)"

definition mozcpp_kw_629 :: "bool \<Rightarrow> codepoint \<Rightarrow> lex_case" where
  "mozcpp_kw_629 eof la = (Some mozcpp_anon_sym_virtual, END_STATE)"

definition mozcpp_kw_630 :: "bool \<Rightarrow> codepoint \<Rightarrow> lex_case" where
  "mozcpp_kw_630 eof la = (None,
      if la = CH_e then ADVANCE 734 else END_STATE)"

definition mozcpp_kw_631 :: "bool \<Rightarrow> codepoint \<Rightarrow> lex_case" where
  "mozcpp_kw_631 eof la = (None,
      if la = CH_Y then ADVANCE 735 else END_STATE)"

definition mozcpp_kw_632 :: "bool \<Rightarrow> codepoint \<Rightarrow> lex_case" where
  "mozcpp_kw_632 eof la = (None,
      if la = CH_S then ADVANCE 736 else END_STATE)"

definition mozcpp_kw_633 :: "bool \<Rightarrow> codepoint \<Rightarrow> lex_case" where
  "mozcpp_kw_633 eof la = (None,
      if la = CH_I then ADVANCE 737 else
      if la = CH_U then ADVANCE 738 else END_STATE)"

definition mozcpp_kw_634 :: "bool \<Rightarrow> codepoint \<Rightarrow> lex_case" where
  "mozcpp_kw_634 eof la = (None,
      if la = CH_C then ADVANCE 739 else END_STATE)"

definition mozcpp_kw_635 :: "bool \<Rightarrow> codepoint \<Rightarrow> lex_case" where
  "mozcpp_kw_635 eof la = (None,
      if la = CH_N then ADVANCE 740 else END_STATE)"

definition mozcpp_kw_636 :: "bool \<Rightarrow> codepoint \<Rightarrow> lex_case" where
  "mozcpp_kw_636 eof la = (None,
      if la = CH_N then ADVANCE 741 else END_STATE)"

definition mozcpp_kw_637 :: "bool \<Rightarrow> codepoint \<Rightarrow> lex_case" where
  "mozcpp_kw_637 eof la = (None,
      if la = CH_C then ADVANCE 742 else
      if la = CH_W then ADVANCE 743 else END_STATE)"

definition mozcpp_kw_638 :: "bool \<Rightarrow> codepoint \<Rightarrow> lex_case" where
  "mozcpp_kw_638 eof la = (None,
      if la = CH_Y then ADVANCE 744 else END_STATE)"

definition mozcpp_kw_639 :: "bool \<Rightarrow> codepoint \<Rightarrow> lex_case" where
  "mozcpp_kw_639 eof la = (None,
      if la = CH_UNDERSCORE then ADVANCE 745 else END_STATE)"

definition mozcpp_kw_640 :: "bool \<Rightarrow> codepoint \<Rightarrow> lex_case" where
  "mozcpp_kw_640 eof la = (None,
      if la = CH_R then ADVANCE 746 else END_STATE)"

definition mozcpp_kw_641 :: "bool \<Rightarrow> codepoint \<Rightarrow> lex_case" where
  "mozcpp_kw_641 eof la = (Some mozcpp_anon_sym_MOZ_COLD, END_STATE)"

definition mozcpp_kw_642 :: "bool \<Rightarrow> codepoint \<Rightarrow> lex_case" where
  "mozcpp_kw_642 eof la = (None,
      if la = CH_UNDERSCORE then ADVANCE 747 else END_STATE)"

definition mozcpp_kw_643 :: "bool \<Rightarrow> codepoint \<Rightarrow> lex_case" where
  "mozcpp_kw_643 eof la = (None,
      if la = CH_T then ADVANCE 748 else END_STATE)"

definition mozcpp_kw_644 :: "bool \<Rightarrow> codepoint \<Rightarrow> lex_case" where
  "mozcpp_kw_644 eof la = (None,
      if la = CH_A then ADVANCE 749 else END_STATE)"

definition mozcpp_kw_645 :: "bool \<Rightarrow> codepoint \<Rightarrow> lex_case" where
  "mozcpp_kw_645 eof la = (None,
      if la = CH_UNDERSCORE then ADVANCE 750 else END_STATE)"

definition mozcpp_kw_646 :: "bool \<Rightarrow> codepoint \<Rightarrow> lex_case" where
  "mozcpp_kw_646 eof la = (None,
      if la = CH_UNDERSCORE then ADVANCE 751 else END_STATE)"

definition mozcpp_kw_647 :: "bool \<Rightarrow> codepoint \<Rightarrow> lex_case" where
  "mozcpp_kw_647 eof la = (None,
      if la = CH_I then ADVANCE 752 else END_STATE)"

definition mozcpp_kw_648 :: "bool \<Rightarrow> codepoint \<Rightarrow> lex_case" where
  "mozcpp_kw_648 eof la = (None,
      if la = CH_R then ADVANCE 753 else END_STATE)"

definition mozcpp_kw_649 :: "bool \<Rightarrow> codepoint \<Rightarrow> lex_case" where
  "mozcpp_kw_649 eof la = (None,
      if la = CH_UNDERSCORE then ADVANCE 754 else END_STATE)"

definition mozcpp_kw_650 :: "bool \<Rightarrow> codepoint \<Rightarrow> lex_case" where
  "mozcpp_kw_650 eof la = (None,
      if la = CH_L then ADVANCE 755 else END_STATE)"

definition mozcpp_kw_651 :: "bool \<Rightarrow> codepoint \<Rightarrow> lex_case" where
  "mozcpp_kw_651 eof la = (None,
      if la = CH_E then ADVANCE 756 else END_STATE)"

definition mozcpp_kw_652 :: "bool \<Rightarrow> codepoint \<Rightarrow> lex_case" where
  "mozcpp_kw_652 eof la = (None,
      if la = CH_M then ADVANCE 757 else END_STATE)"

definition mozcpp_kw_653 :: "bool \<Rightarrow> codepoint \<Rightarrow> lex_case" where
  "mozcpp_kw_653 eof la = (None,
      if la = CH_E then ADVANCE 758 else END_STATE)"

definition mozcpp_kw_654 :: "bool \<Rightarrow> codepoint \<Rightarrow> lex_case" where
  "mozcpp_kw_654 eof la = (None,
      if la = CH_C then ADVANCE 759 else END_STATE)"

definition mozcpp_kw_655 :: "bool \<Rightarrow> codepoint \<Rightarrow> lex_case" where
  "mozcpp_kw_655 eof la = (None,
      if la = CH_UNDERSCORE then ADVANCE 760 else END_STATE)"

definition mozcpp_kw_656 :: "bool \<Rightarrow> codepoint \<Rightarrow> lex_case" where
  "mozcpp_kw_656 eof la = (None,
      if la = CH_S then ADVANCE 761 else END_STATE)"

definition mozcpp_kw_657 :: "bool \<Rightarrow> codepoint \<Rightarrow> lex_case" where
  "mozcpp_kw_657 eof la = (None,
      if la = CH_R then ADVANCE 762 else END_STATE)"

definition mozcpp_kw_658 :: "bool \<Rightarrow> codepoint \<Rightarrow> lex_case" where
  "mozcpp_kw_658 eof la = (None,
      if la = CH_E then ADVANCE 763 else END_STATE)"

definition mozcpp_kw_659 :: "bool \<Rightarrow> codepoint \<Rightarrow> lex_case" where
  "mozcpp_kw_659 eof la = (None,
      if la = CH_U then ADVANCE 764 else END_STATE)"

definition mozcpp_kw_660 :: "bool \<Rightarrow> codepoint \<Rightarrow> lex_case" where
  "mozcpp_kw_660 eof la = (None,
      if la = CH_A then ADVANCE 765 else
      if la = CH_M then ADVANCE 766 else
      if la = CH_O then ADVANCE 767 else
      if la = CH_P then ADVANCE 768 else
      if la = CH_T then ADVANCE 769 else END_STATE)"

definition mozcpp_kw_661 :: "bool \<Rightarrow> codepoint \<Rightarrow> lex_case" where
  "mozcpp_kw_661 eof la = (None,
      if la = CH_T then ADVANCE 770 else END_STATE)"

definition mozcpp_kw_662 :: "bool \<Rightarrow> codepoint \<Rightarrow> lex_case" where
  "mozcpp_kw_662 eof la = (None,
      if la = CH_D then ADVANCE 771 else
      if la = CH_R then ADVANCE 772 else END_STATE)"

definition mozcpp_kw_663 :: "bool \<Rightarrow> codepoint \<Rightarrow> lex_case" where
  "mozcpp_kw_663 eof la = (None,
      if la = CH_A then ADVANCE 773 else END_STATE)"

definition mozcpp_kw_664 :: "bool \<Rightarrow> codepoint \<Rightarrow> lex_case" where
  "mozcpp_kw_664 eof la = (None,
      if la = CH_A then ADVANCE 774 else END_STATE)"

definition mozcpp_kw_665 :: "bool \<Rightarrow> codepoint \<Rightarrow> lex_case" where
  "mozcpp_kw_665 eof la = (None,
      if la = CH_UNDERSCORE then ADVANCE 775 else END_STATE)"

definition mozcpp_kw_666 :: "bool \<Rightarrow> codepoint \<Rightarrow> lex_case" where
  "mozcpp_kw_666 eof la = (None,
      if la = CH_N then ADVANCE 776 else END_STATE)"

definition mozcpp_kw_667 :: "bool \<Rightarrow> codepoint \<Rightarrow> lex_case" where
  "mozcpp_kw_667 eof la = (None,
      if la = CH_D then ADVANCE 777 else END_STATE)"

definition mozcpp_kw_668 :: "bool \<Rightarrow> codepoint \<Rightarrow> lex_case" where
  "mozcpp_kw_668 eof la = (None,
      if la = CH_E then ADVANCE 778 else END_STATE)"

definition mozcpp_kw_669 :: "bool \<Rightarrow> codepoint \<Rightarrow> lex_case" where
  "mozcpp_kw_669 eof la = (None,
      if la = CH_UNDERSCORE then ADVANCE 779 else END_STATE)"

definition mozcpp_kw_670 :: "bool \<Rightarrow> codepoint \<Rightarrow> lex_case" where
  "mozcpp_kw_670 eof la = (Some mozcpp_anon_sym_MOZ_RAII, END_STATE)"

definition mozcpp_kw_671 :: "bool \<Rightarrow> codepoint \<Rightarrow> lex_case" where
  "mozcpp_kw_671 eof la = (None,
      if la = CH_I then ADVANCE 780 else END_STATE)"

definition mozcpp_kw_672 :: "bool \<Rightarrow> codepoint \<Rightarrow> lex_case" where
  "mozcpp_kw_672 eof la = (None,
      if la = CH_K then ADVANCE 781 else END_STATE)"

definition mozcpp_kw_673 :: "bool \<Rightarrow> codepoint \<Rightarrow> lex_case" where
  "mozcpp_kw_673 eof la = (None,
      if la = CH_I then ADVANCE 782 else END_STATE)"

definition mozcpp_kw_674 :: "bool \<Rightarrow> codepoint \<Rightarrow> lex_case" where
  "mozcpp_kw_674 eof la = (None,
      if la = CH_O then ADVANCE 783 else END_STATE)"

definition mozcpp_kw_675 :: "bool \<Rightarrow> codepoint \<Rightarrow> lex_case" where
  "mozcpp_kw_675 eof la = (None,
      if la = CH_I then ADVANCE 784 else END_STATE)"

definition mozcpp_kw_676 :: "bool \<Rightarrow> codepoint \<Rightarrow> lex_case" where
  "mozcpp_kw_676 eof la = (None,
      if la = CH_UNDERSCORE then ADVANCE 785 else END_STATE)"

definition mozcpp_kw_677 :: "bool \<Rightarrow> codepoint \<Rightarrow> lex_case" where
  "mozcpp_kw_677 eof la = (None,
      if la = CH_F then ADVANCE 786 else END_STATE)"

definition mozcpp_kw_678 :: "bool \<Rightarrow> codepoint \<Rightarrow> lex_case" where
  "mozcpp_kw_678 eof la = (None,
      if la = CH_M then ADVANCE 787 else END_STATE)"

definition mozcpp_kw_679 :: "bool \<Rightarrow> codepoint \<Rightarrow> lex_case" where
  "mozcpp_kw_679 eof la = (None,
      if la = CH_N then ADVANCE 788 else END_STATE)"

definition mozcpp_kw_680 :: "bool \<Rightarrow> codepoint \<Rightarrow> lex_case" where
  "mozcpp_kw_680 eof la = (None,
      if la = CH_O then ADVANCE 789 else END_STATE)"

definition mozcpp_kw_681 :: "bool \<Rightarrow> codepoint \<Rightarrow> lex_case" where
  "mozcpp_kw_681 eof la = (None,
      if la = CH_N then ADVANCE 790 else END_STATE)"

definition mozcpp_kw_682 :: "bool \<Rightarrow> codepoint \<Rightarrow> lex_case" where
  "mozcpp_kw_682 eof la = (None,
      if la = CH_N then ADVANCE 791 else END_STATE)"

definition mozcpp_kw_683 :: "bool \<Rightarrow> codepoint \<Rightarrow> lex_case" where
  "mozcpp_kw_683 eof la = (None,
      if la = CH_N then ADVANCE 792 else END_STATE)"

definition mozcpp_kw_684 :: "bool \<Rightarrow> codepoint \<Rightarrow> lex_case" where
  "mozcpp_kw_684 eof la = (None,
      if la = CH_N then ADVANCE 793 else END_STATE)"

definition mozcpp_kw_685 :: "bool \<Rightarrow> codepoint \<Rightarrow> lex_case" where
  "mozcpp_kw_685 eof la = (None,
      if la = CH_I then ADVANCE 794 else
      if la = CH_U then ADVANCE 795 else END_STATE)"

definition mozcpp_kw_686 :: "bool \<Rightarrow> codepoint \<Rightarrow> lex_case" where
  "mozcpp_kw_686 eof la = (Some mozcpp_anon_sym__Alignas, END_STATE)"

definition mozcpp_kw_687 :: "bool \<Rightarrow> codepoint \<Rightarrow> lex_case" where
  "mozcpp_kw_687 eof la = (Some mozcpp_anon_sym__Alignof, END_STATE)"

definition mozcpp_kw_688 :: "bool \<Rightarrow> codepoint \<Rightarrow> lex_case" where
  "mozcpp_kw_688 eof la = (Some mozcpp_anon_sym__Generic, END_STATE)"

definition mozcpp_kw_689 :: "bool \<Rightarrow> codepoint \<Rightarrow> lex_case" where
  "mozcpp_kw_689 eof la = (Some mozcpp_anon_sym__Nonnull, END_STATE)"

definition mozcpp_kw_690 :: "bool \<Rightarrow> codepoint \<Rightarrow> lex_case" where
  "mozcpp_kw_690 eof la = (None,
      if la = CH_n then ADVANCE 796 else END_STATE)"

definition mozcpp_kw_691 :: "bool \<Rightarrow> codepoint \<Rightarrow> lex_case" where
  "mozcpp_kw_691 eof la = (None,
      if la = CH_f then ADVANCE 797 else END_STATE)"

definition mozcpp_kw_692 :: "bool \<Rightarrow> codepoint \<Rightarrow> lex_case" where
  "mozcpp_kw_692 eof la = (None,
      if la = CH_u then ADVANCE 798 else END_STATE)"

definition mozcpp_kw_693 :: "bool \<Rightarrow> codepoint \<Rightarrow> lex_case" where
  "mozcpp_kw_693 eof la = (None,
      if la = CH_l then ADVANCE 799 else END_STATE)"

definition mozcpp_kw_694 :: "bool \<Rightarrow> codepoint \<Rightarrow> lex_case" where
  "mozcpp_kw_694 eof la = (None,
      if la = CH_e then ADVANCE 800 else END_STATE)"

definition mozcpp_kw_695 :: "bool \<Rightarrow> codepoint \<Rightarrow> lex_case" where
  "mozcpp_kw_695 eof la = (Some mozcpp_anon_sym___except, END_STATE)"

definition mozcpp_kw_696 :: "bool \<Rightarrow> codepoint \<Rightarrow> lex_case" where
  "mozcpp_kw_696 eof la = (None,
      if la = CH_i then ADVANCE 801 else END_STATE)"

definition mozcpp_kw_697 :: "bool \<Rightarrow> codepoint \<Rightarrow> lex_case" where
  "mozcpp_kw_697 eof la = (None,
      if la = CH_l then ADVANCE 802 else END_STATE)"

definition mozcpp_kw_698 :: "bool \<Rightarrow> codepoint \<Rightarrow> lex_case" where
  "mozcpp_kw_698 eof la = (None,
      if la = CH_y then ADVANCE 803 else END_STATE)"

definition mozcpp_kw_699 :: "bool \<Rightarrow> codepoint \<Rightarrow> lex_case" where
  "mozcpp_kw_699 eof la = (None,
      if la = CH_n then ADVANCE 804 else END_STATE)"

definition mozcpp_kw_700 :: "bool \<Rightarrow> codepoint \<Rightarrow> lex_case" where
  "mozcpp_kw_700 eof la = (Some mozcpp_anon_sym___inline,
      if la = CH_UNDERSCORE then ADVANCE 805 else END_STATE)"

definition mozcpp_kw_701 :: "bool \<Rightarrow> codepoint \<Rightarrow> lex_case" where
  "mozcpp_kw_701 eof la = (None,
      if la = CH_c then ADVANCE 806 else END_STATE)"

definition mozcpp_kw_702 :: "bool \<Rightarrow> codepoint \<Rightarrow> lex_case" where
  "mozcpp_kw_702 eof la = (None,
      if la = CH_l then ADVANCE 807 else END_STATE)"

definition mozcpp_kw_703 :: "bool \<Rightarrow> codepoint \<Rightarrow> lex_case" where
  "mozcpp_kw_703 eof la = (None,
      if la = CH_l then ADVANCE 808 else END_STATE)"

definition mozcpp_kw_704 :: "bool \<Rightarrow> codepoint \<Rightarrow> lex_case" where
  "mozcpp_kw_704 eof la = (Some mozcpp_anon_sym___thread, END_STATE)"

definition mozcpp_kw_705 :: "bool \<Rightarrow> codepoint \<Rightarrow> lex_case" where
  "mozcpp_kw_705 eof la = (None,
      if la = CH_n then ADVANCE 809 else END_STATE)"

definition mozcpp_kw_706 :: "bool \<Rightarrow> codepoint \<Rightarrow> lex_case" where
  "mozcpp_kw_706 eof la = (None,
      if la = CH_c then ADVANCE 810 else END_STATE)"

definition mozcpp_kw_707 :: "bool \<Rightarrow> codepoint \<Rightarrow> lex_case" where
  "mozcpp_kw_707 eof la = (None,
      if la = CH_l then ADVANCE 811 else END_STATE)"

definition mozcpp_kw_708 :: "bool \<Rightarrow> codepoint \<Rightarrow> lex_case" where
  "mozcpp_kw_708 eof la = (Some mozcpp_anon_sym__alignof, END_STATE)"

definition mozcpp_kw_709 :: "bool \<Rightarrow> codepoint \<Rightarrow> lex_case" where
  "mozcpp_kw_709 eof la = (None,
      if la = CH_e then ADVANCE 812 else END_STATE)"

definition mozcpp_kw_710 :: "bool \<Rightarrow> codepoint \<Rightarrow> lex_case" where
  "mozcpp_kw_710 eof la = (Some mozcpp_anon_sym_co_await, END_STATE)"

definition mozcpp_kw_711 :: "bool \<Rightarrow> codepoint \<Rightarrow> lex_case" where
  "mozcpp_kw_711 eof la = (None,
      if la = CH_n then ADVANCE 813 else END_STATE)"

definition mozcpp_kw_712 :: "bool \<Rightarrow> codepoint \<Rightarrow> lex_case" where
  "mozcpp_kw_712 eof la = (Some mozcpp_anon_sym_co_yield, END_STATE)"

definition mozcpp_kw_713 :: "bool \<Rightarrow> codepoint \<Rightarrow> lex_case" where
  "mozcpp_kw_713 eof la = (None,
      if la = CH_l then ADVANCE 814 else END_STATE)"

definition mozcpp_kw_714 :: "bool \<Rightarrow> codepoint \<Rightarrow> lex_case" where
  "mozcpp_kw_714 eof la = (None,
      if la = CH_r then ADVANCE 815 else END_STATE)"

definition mozcpp_kw_715 :: "bool \<Rightarrow> codepoint \<Rightarrow> lex_case" where
  "mozcpp_kw_715 eof la = (None,
      if la = CH_t then ADVANCE 816 else END_STATE)"

definition mozcpp_kw_716 :: "bool \<Rightarrow> codepoint \<Rightarrow> lex_case" where
  "mozcpp_kw_716 eof la = (Some mozcpp_anon_sym_continue, END_STATE)"

definition mozcpp_kw_717 :: "bool \<Rightarrow> codepoint \<Rightarrow> lex_case" where
  "mozcpp_kw_717 eof la = (Some mozcpp_anon_sym_decltype, END_STATE)"

definition mozcpp_kw_718 :: "bool \<Rightarrow> codepoint \<Rightarrow> lex_case" where
  "mozcpp_kw_718 eof la = (Some mozcpp_anon_sym_explicit, END_STATE)"

definition mozcpp_kw_719 :: "bool \<Rightarrow> codepoint \<Rightarrow> lex_case" where
  "mozcpp_kw_719 eof la = (None,
      if la = CH_e then ADVANCE 817 else END_STATE)"

definition mozcpp_kw_720 :: "bool \<Rightarrow> codepoint \<Rightarrow> lex_case" where
  "mozcpp_kw_720 eof la = (Some mozcpp_anon_sym_noexcept, END_STATE)"

definition mozcpp_kw_721 :: "bool \<Rightarrow> codepoint \<Rightarrow> lex_case" where
  "mozcpp_kw_721 eof la = (Some mozcpp_anon_sym_noreturn, END_STATE)"

definition mozcpp_kw_722 :: "bool \<Rightarrow> codepoint \<Rightarrow> lex_case" where
  "mozcpp_kw_722 eof la = (Some mozcpp_anon_sym_offsetof, END_STATE)"

definition mozcpp_kw_723 :: "bool \<Rightarrow> codepoint \<Rightarrow> lex_case" where
  "mozcpp_kw_723 eof la = (Some mozcpp_anon_sym_operator, END_STATE)"

definition mozcpp_kw_724 :: "bool \<Rightarrow> codepoint \<Rightarrow> lex_case" where
  "mozcpp_kw_724 eof la = (Some mozcpp_anon_sym_override, END_STATE)"

definition mozcpp_kw_725 :: "bool \<Rightarrow> codepoint \<Rightarrow> lex_case" where
  "mozcpp_kw_725 eof la = (None,
      if la = CH_d then ADVANCE 818 else END_STATE)"

definition mozcpp_kw_726 :: "bool \<Rightarrow> codepoint \<Rightarrow> lex_case" where
  "mozcpp_kw_726 eof la = (Some mozcpp_anon_sym_register, END_STATE)"

definition mozcpp_kw_727 :: "bool \<Rightarrow> codepoint \<Rightarrow> lex_case" where
  "mozcpp_kw_727 eof la = (Some mozcpp_anon_sym_requires, END_STATE)"

definition mozcpp_kw_728 :: "bool \<Rightarrow> codepoint \<Rightarrow> lex_case" where
  "mozcpp_kw_728 eof la = (Some mozcpp_anon_sym_restrict, END_STATE)"

definition mozcpp_kw_729 :: "bool \<Rightarrow> codepoint \<Rightarrow> lex_case" where
  "mozcpp_kw_729 eof la = (None,
      if la = CH_s then ADVANCE 819 else END_STATE)"

definition mozcpp_kw_730 :: "bool \<Rightarrow> codepoint \<Rightarrow> lex_case" where
  "mozcpp_kw_730 eof la = (Some mozcpp_anon_sym_template, END_STATE)"

definition mozcpp_kw_731 :: "bool \<Rightarrow> codepoint \<Rightarrow> lex_case" where
  "mozcpp_kw_731 eof la = (None,
      if la = CH_o then ADVANCE 820 else END_STATE)"

definition mozcpp_kw_732 :: "bool \<Rightarrow> codepoint \<Rightarrow> lex_case" where
  "mozcpp_kw_732 eof la = (Some mozcpp_anon_sym_typename, END_STATE)"

definition mozcpp_kw_733 :: "bool \<Rightarrow> codepoint \<Rightarrow> lex_case" where
  "mozcpp_kw_733 eof la = (Some mozcpp_anon_sym_unsigned, END_STATE)"

definition mozcpp_kw_734 :: "bool \<Rightarrow> codepoint \<Rightarrow> lex_case" where
  "mozcpp_kw_734 eof la = (Some mozcpp_anon_sym_volatile, END_STATE)"

definition mozcpp_kw_735 :: "bool \<Rightarrow> codepoint \<Rightarrow> lex_case" where
  "mozcpp_kw_735 eof la = (None,
      if la = CH_UNDERSCORE then ADVANCE 821 else END_STATE)"

definition mozcpp_kw_736 :: "bool \<Rightarrow> codepoint \<Rightarrow> lex_case" where
  "mozcpp_kw_736 eof la = (None,
      if la = CH_E then ADVANCE 822 else END_STATE)"

definition mozcpp_kw_737 :: "bool \<Rightarrow> codepoint \<Rightarrow> lex_case" where
  "mozcpp_kw_737 eof la = (None,
      if la = CH_N then ADVANCE 823 else END_STATE)"

definition mozcpp_kw_738 :: "bool \<Rightarrow> codepoint \<Rightarrow> lex_case" where
  "mozcpp_kw_738 eof la = (None,
      if la = CH_N then ADVANCE 824 else END_STATE)"

definition mozcpp_kw_739 :: "bool \<Rightarrow> codepoint \<Rightarrow> lex_case" where
  "mozcpp_kw_739 eof la = (None,
      if la = CH_UNDERSCORE then ADVANCE 825 else END_STATE)"

definition mozcpp_kw_740 :: "bool \<Rightarrow> codepoint \<Rightarrow> lex_case" where
  "mozcpp_kw_740 eof la = (None,
      if la = CH_S then ADVANCE 826 else END_STATE)"

definition mozcpp_kw_741 :: "bool \<Rightarrow> codepoint \<Rightarrow> lex_case" where
  "mozcpp_kw_741 eof la = (None,
      if la = CH_W then ADVANCE 827 else END_STATE)"

definition mozcpp_kw_742 :: "bool \<Rightarrow> codepoint \<Rightarrow> lex_case" where
  "mozcpp_kw_742 eof la = (None,
      if la = CH_A then ADVANCE 828 else END_STATE)"

definition mozcpp_kw_743 :: "bool \<Rightarrow> codepoint \<Rightarrow> lex_case" where
  "mozcpp_kw_743 eof la = (None,
      if la = CH_UNDERSCORE then ADVANCE 829 else END_STATE)"

definition mozcpp_kw_744 :: "bool \<Rightarrow> codepoint \<Rightarrow> lex_case" where
  "mozcpp_kw_744 eof la = (None,
      if la = CH_S then ADVANCE 830 else END_STATE)"

definition mozcpp_kw_745 :: "bool \<Rightarrow> codepoint \<Rightarrow> lex_case" where
  "mozcpp_kw_745 eof la = (None,
      if la = CH_B then ADVANCE 831 else END_STATE)"

definition mozcpp_kw_746 :: "bool \<Rightarrow> codepoint \<Rightarrow> lex_case" where
  "mozcpp_kw_746 eof la = (None,
      if la = CH_U then ADVANCE 832 else END_STATE)"

definition mozcpp_kw_747 :: "bool \<Rightarrow> codepoint \<Rightarrow> lex_case" where
  "mozcpp_kw_747 eof la = (None,
      if la = CH_U then ADVANCE 833 else END_STATE)"

definition mozcpp_kw_748 :: "bool \<Rightarrow> codepoint \<Rightarrow> lex_case" where
  "mozcpp_kw_748 eof la = (None,
      if la = CH_H then ADVANCE 834 else END_STATE)"

definition mozcpp_kw_749 :: "bool \<Rightarrow> codepoint \<Rightarrow> lex_case" where
  "mozcpp_kw_749 eof la = (None,
      if la = CH_T then ADVANCE 835 else END_STATE)"

definition mozcpp_kw_750 :: "bool \<Rightarrow> codepoint \<Rightarrow> lex_case" where
  "mozcpp_kw_750 eof la = (None,
      if la = CH_A then ADVANCE 836 else
      if la = CH_N then ADVANCE 837 else
      if la = CH_S then ADVANCE 838 else
      if la = CH_U then ADVANCE 839 else END_STATE)"

definition mozcpp_kw_751 :: "bool \<Rightarrow> codepoint \<Rightarrow> lex_case" where
  "mozcpp_kw_751 eof la = (None,
      if la = CH_A then ADVANCE 840 else
      if la = CH_C then ADVANCE 841 else END_STATE)"

definition mozcpp_kw_752 :: "bool \<Rightarrow> codepoint \<Rightarrow> lex_case" where
  "mozcpp_kw_752 eof la = (None,
      if la = CH_C then ADVANCE 842 else END_STATE)"

definition mozcpp_kw_753 :: "bool \<Rightarrow> codepoint \<Rightarrow> lex_case" where
  "mozcpp_kw_753 eof la = (None,
      if la = CH_I then ADVANCE 843 else END_STATE)"

definition mozcpp_kw_754 :: "bool \<Rightarrow> codepoint \<Rightarrow> lex_case" where
  "mozcpp_kw_754 eof la = (None,
      if la = CH_O then ADVANCE 844 else END_STATE)"

definition mozcpp_kw_755 :: "bool \<Rightarrow> codepoint \<Rightarrow> lex_case" where
  "mozcpp_kw_755 eof la = (None,
      if la = CH_A then ADVANCE 845 else END_STATE)"

definition mozcpp_kw_756 :: "bool \<Rightarrow> codepoint \<Rightarrow> lex_case" where
  "mozcpp_kw_756 eof la = (None,
      if la = CH_F then ADVANCE 846 else END_STATE)"

definition mozcpp_kw_757 :: "bool \<Rightarrow> codepoint \<Rightarrow> lex_case" where
  "mozcpp_kw_757 eof la = (None,
      if la = CH_A then ADVANCE 847 else END_STATE)"

definition mozcpp_kw_758 :: "bool \<Rightarrow> codepoint \<Rightarrow> lex_case" where
  "mozcpp_kw_758 eof la = (None,
      if la = CH_UNDERSCORE then ADVANCE 848 else END_STATE)"

definition mozcpp_kw_759 :: "bool \<Rightarrow> codepoint \<Rightarrow> lex_case" where
  "mozcpp_kw_759 eof la = (None,
      if la = CH_A then ADVANCE 849 else END_STATE)"

definition mozcpp_kw_760 :: "bool \<Rightarrow> codepoint \<Rightarrow> lex_case" where
  "mozcpp_kw_760 eof la = (None,
      if la = CH_O then ADVANCE 850 else
      if la = CH_R then ADVANCE 851 else
      if la = CH_U then ADVANCE 852 else END_STATE)"

definition mozcpp_kw_761 :: "bool \<Rightarrow> codepoint \<Rightarrow> lex_case" where
  "mozcpp_kw_761 eof la = (None,
      if la = CH_UNDERSCORE then ADVANCE 853 else END_STATE)"

definition mozcpp_kw_762 :: "bool \<Rightarrow> codepoint \<Rightarrow> lex_case" where
  "mozcpp_kw_762 eof la = (None,
      if la = CH_UNDERSCORE then ADVANCE 854 else END_STATE)"

definition mozcpp_kw_763 :: "bool \<Rightarrow> codepoint \<Rightarrow> lex_case" where
  "mozcpp_kw_763 eof la = (None,
      if la = CH_A then ADVANCE 855 else END_STATE)"

definition mozcpp_kw_764 :: "bool \<Rightarrow> codepoint \<Rightarrow> lex_case" where
  "mozcpp_kw_764 eof la = (None,
      if la = CH_L then ADVANCE 856 else END_STATE)"

definition mozcpp_kw_765 :: "bool \<Rightarrow> codepoint \<Rightarrow> lex_case" where
  "mozcpp_kw_765 eof la = (None,
      if la = CH_U then ADVANCE 857 else END_STATE)"

definition mozcpp_kw_766 :: "bool \<Rightarrow> codepoint \<Rightarrow> lex_case" where
  "mozcpp_kw_766 eof la = (None,
      if la = CH_E then ADVANCE 858 else END_STATE)"

definition mozcpp_kw_767 :: "bool \<Rightarrow> codepoint \<Rightarrow> lex_case" where
  "mozcpp_kw_767 eof la = (None,
      if la = CH_W then ADVANCE 859 else END_STATE)"

definition mozcpp_kw_768 :: "bool \<Rightarrow> codepoint \<Rightarrow> lex_case" where
  "mozcpp_kw_768 eof la = (None,
      if la = CH_A then ADVANCE 860 else END_STATE)"

definition mozcpp_kw_769 :: "bool \<Rightarrow> codepoint \<Rightarrow> lex_case" where
  "mozcpp_kw_769 eof la = (None,
      if la = CH_E then ADVANCE 861 else END_STATE)"

definition mozcpp_kw_770 :: "bool \<Rightarrow> codepoint \<Rightarrow> lex_case" where
  "mozcpp_kw_770 eof la = (None,
      if la = CH_U then ADVANCE 862 else END_STATE)"

definition mozcpp_kw_771 :: "bool \<Rightarrow> codepoint \<Rightarrow> lex_case" where
  "mozcpp_kw_771 eof la = (None,
      if la = CH_D then ADVANCE 863 else END_STATE)"

definition mozcpp_kw_772 :: "bool \<Rightarrow> codepoint \<Rightarrow> lex_case" where
  "mozcpp_kw_772 eof la = (None,
      if la = CH_I then ADVANCE 864 else END_STATE)"

definition mozcpp_kw_773 :: "bool \<Rightarrow> codepoint \<Rightarrow> lex_case" where
  "mozcpp_kw_773 eof la = (None,
      if la = CH_N then ADVANCE 865 else END_STATE)"

definition mozcpp_kw_774 :: "bool \<Rightarrow> codepoint \<Rightarrow> lex_case" where
  "mozcpp_kw_774 eof la = (None,
      if la = CH_N then ADVANCE 866 else END_STATE)"

definition mozcpp_kw_775 :: "bool \<Rightarrow> codepoint \<Rightarrow> lex_case" where
  "mozcpp_kw_775 eof la = (None,
      if la = CH_U then ADVANCE 867 else END_STATE)"

definition mozcpp_kw_776 :: "bool \<Rightarrow> codepoint \<Rightarrow> lex_case" where
  "mozcpp_kw_776 eof la = (None,
      if la = CH_G then ADVANCE 868 else END_STATE)"

definition mozcpp_kw_777 :: "bool \<Rightarrow> codepoint \<Rightarrow> lex_case" where
  "mozcpp_kw_777 eof la = (None,
      if la = CH_I then ADVANCE 869 else END_STATE)"

definition mozcpp_kw_778 :: "bool \<Rightarrow> codepoint \<Rightarrow> lex_case" where
  "mozcpp_kw_778 eof la = (None,
      if la = CH_N then ADVANCE 870 else END_STATE)"

definition mozcpp_kw_779 :: "bool \<Rightarrow> codepoint \<Rightarrow> lex_case" where
  "mozcpp_kw_779 eof la = (None,
      if la = CH_D then ADVANCE 871 else END_STATE)"

definition mozcpp_kw_780 :: "bool \<Rightarrow> codepoint \<Rightarrow> lex_case" where
  "mozcpp_kw_780 eof la = (None,
      if la = CH_R then ADVANCE 872 else END_STATE)"

definition mozcpp_kw_781 :: "bool \<Rightarrow> codepoint \<Rightarrow> lex_case" where
  "mozcpp_kw_781 eof la = (None,
      if la = CH_UNDERSCORE then ADVANCE 873 else END_STATE)"

definition mozcpp_kw_782 :: "bool \<Rightarrow> codepoint \<Rightarrow> lex_case" where
  "mozcpp_kw_782 eof la = (None,
      if la = CH_C then ADVANCE 874 else END_STATE)"

definition mozcpp_kw_783 :: "bool \<Rightarrow> codepoint \<Rightarrow> lex_case" where
  "mozcpp_kw_783 eof la = (None,
      if la = CH_R then ADVANCE 875 else END_STATE)"

definition mozcpp_kw_784 :: "bool \<Rightarrow> codepoint \<Rightarrow> lex_case" where
  "mozcpp_kw_784 eof la = (None,
      if la = CH_A then ADVANCE 876 else END_STATE)"

definition mozcpp_kw_785 :: "bool \<Rightarrow> codepoint \<Rightarrow> lex_case" where
  "mozcpp_kw_785 eof la = (None,
      if la = CH_B then ADVANCE 877 else END_STATE)"

definition mozcpp_kw_786 :: "bool \<Rightarrow> codepoint \<Rightarrow> lex_case" where
  "mozcpp_kw_786 eof la = (None,
      if la = CH_E then ADVANCE 878 else END_STATE)"

definition mozcpp_kw_787 :: "bool \<Rightarrow> codepoint \<Rightarrow> lex_case" where
  "mozcpp_kw_787 eof la = (None,
      if la = CH_UNDERSCORE then ADVANCE 879 else END_STATE)"

definition mozcpp_kw_788 :: "bool \<Rightarrow> codepoint \<Rightarrow> lex_case" where
  "mozcpp_kw_788 eof la = (None,
      if la = CH_D then ADVANCE 880 else END_STATE)"

definition mozcpp_kw_789 :: "bool \<Rightarrow> codepoint \<Rightarrow> lex_case" where
  "mozcpp_kw_789 eof la = (None,
      if la = CH_C then ADVANCE 881 else END_STATE)"

definition mozcpp_kw_790 :: "bool \<Rightarrow> codepoint \<Rightarrow> lex_case" where
  "mozcpp_kw_790 eof la = (None,
      if la = CH_L then ADVANCE 882 else END_STATE)"

definition mozcpp_kw_791 :: "bool \<Rightarrow> codepoint \<Rightarrow> lex_case" where
  "mozcpp_kw_791 eof la = (None,
      if la = CH_S then ADVANCE 883 else END_STATE)"

definition mozcpp_kw_792 :: "bool \<Rightarrow> codepoint \<Rightarrow> lex_case" where
  "mozcpp_kw_792 eof la = (None,
      if la = CH_W then ADVANCE 884 else END_STATE)"

definition mozcpp_kw_793 :: "bool \<Rightarrow> codepoint \<Rightarrow> lex_case" where
  "mozcpp_kw_793 eof la = (None,
      if la = CH_L then ADVANCE 885 else END_STATE)"

definition mozcpp_kw_794 :: "bool \<Rightarrow> codepoint \<Rightarrow> lex_case" where
  "mozcpp_kw_794 eof la = (None,
      if la = CH_N then ADVANCE 886 else END_STATE)"

definition mozcpp_kw_795 :: "bool \<Rightarrow> codepoint \<Rightarrow> lex_case" where
  "mozcpp_kw_795 eof la = (None,
      if la = CH_N then ADVANCE 887 else END_STATE)"

definition mozcpp_kw_796 :: "bool \<Rightarrow> codepoint \<Rightarrow> lex_case" where
  "mozcpp_kw_796 eof la = (Some mozcpp_anon_sym__Noreturn, END_STATE)"

definition mozcpp_kw_797 :: "bool \<Rightarrow> codepoint \<Rightarrow> lex_case" where
  "mozcpp_kw_797 eof la = (Some mozcpp_anon_sym___alignof,
      if la = CH_UNDERSCORE then ADVANCE 888 else END_STATE)"

definition mozcpp_kw_798 :: "bool \<Rightarrow> codepoint \<Rightarrow> lex_case" where
  "mozcpp_kw_798 eof la = (None,
      if la = CH_t then ADVANCE 889 else END_STATE)"

definition mozcpp_kw_799 :: "bool \<Rightarrow> codepoint \<Rightarrow> lex_case" where
  "mozcpp_kw_799 eof la = (Some mozcpp_anon_sym___clrcall, END_STATE)"

definition mozcpp_kw_800 :: "bool \<Rightarrow> codepoint \<Rightarrow> lex_case" where
  "mozcpp_kw_800 eof la = (None,
      if la = CH_c then ADVANCE 890 else END_STATE)"

definition mozcpp_kw_801 :: "bool \<Rightarrow> codepoint \<Rightarrow> lex_case" where
  "mozcpp_kw_801 eof la = (None,
      if la = CH_o then ADVANCE 891 else END_STATE)"

definition mozcpp_kw_802 :: "bool \<Rightarrow> codepoint \<Rightarrow> lex_case" where
  "mozcpp_kw_802 eof la = (None,
      if la = CH_l then ADVANCE 892 else END_STATE)"

definition mozcpp_kw_803 :: "bool \<Rightarrow> codepoint \<Rightarrow> lex_case" where
  "mozcpp_kw_803 eof la = (Some mozcpp_anon_sym___finally, END_STATE)"

definition mozcpp_kw_804 :: "bool \<Rightarrow> codepoint \<Rightarrow> lex_case" where
  "mozcpp_kw_804 eof la = (None,
      if la = CH_l then ADVANCE 893 else END_STATE)"

definition mozcpp_kw_805 :: "bool \<Rightarrow> codepoint \<Rightarrow> lex_case" where
  "mozcpp_kw_805 eof la = (None,
      if la = CH_UNDERSCORE then ADVANCE 894 else END_STATE)"

definition mozcpp_kw_806 :: "bool \<Rightarrow> codepoint \<Rightarrow> lex_case" where
  "mozcpp_kw_806 eof la = (None,
      if la = CH_t then ADVANCE 895 else END_STATE)"

definition mozcpp_kw_807 :: "bool \<Rightarrow> codepoint \<Rightarrow> lex_case" where
  "mozcpp_kw_807 eof la = (Some mozcpp_anon_sym___stdcall, END_STATE)"

definition mozcpp_kw_808 :: "bool \<Rightarrow> codepoint \<Rightarrow> lex_case" where
  "mozcpp_kw_808 eof la = (None,
      if la = CH_l then ADVANCE 896 else END_STATE)"

definition mozcpp_kw_809 :: "bool \<Rightarrow> codepoint \<Rightarrow> lex_case" where
  "mozcpp_kw_809 eof la = (None,
      if la = CH_e then ADVANCE 897 else END_STATE)"

definition mozcpp_kw_810 :: "bool \<Rightarrow> codepoint \<Rightarrow> lex_case" where
  "mozcpp_kw_810 eof la = (None,
      if la = CH_a then ADVANCE 898 else END_STATE)"

definition mozcpp_kw_811 :: "bool \<Rightarrow> codepoint \<Rightarrow> lex_case" where
  "mozcpp_kw_811 eof la = (None,
      if la = CH_e then ADVANCE 899 else END_STATE)"

definition mozcpp_kw_812 :: "bool \<Rightarrow> codepoint \<Rightarrow> lex_case" where
  "mozcpp_kw_812 eof la = (None,
      if la = CH_d then ADVANCE 900 else END_STATE)"

definition mozcpp_kw_813 :: "bool \<Rightarrow> codepoint \<Rightarrow> lex_case" where
  "mozcpp_kw_813 eof la = (Some mozcpp_anon_sym_co_return, END_STATE)"

definition mozcpp_kw_814 :: "bool \<Rightarrow> codepoint \<Rightarrow> lex_case" where
  "mozcpp_kw_814 eof la = (Some mozcpp_anon_sym_consteval, END_STATE)"

definition mozcpp_kw_815 :: "bool \<Rightarrow> codepoint \<Rightarrow> lex_case" where
  "mozcpp_kw_815 eof la = (Some mozcpp_anon_sym_constexpr, END_STATE)"

definition mozcpp_kw_816 :: "bool \<Rightarrow> codepoint \<Rightarrow> lex_case" where
  "mozcpp_kw_816 eof la = (Some mozcpp_anon_sym_constinit, END_STATE)"

definition mozcpp_kw_817 :: "bool \<Rightarrow> codepoint \<Rightarrow> lex_case" where
  "mozcpp_kw_817 eof la = (Some mozcpp_anon_sym_namespace, END_STATE)"

definition mozcpp_kw_818 :: "bool \<Rightarrow> codepoint \<Rightarrow> lex_case" where
  "mozcpp_kw_818 eof la = (Some mozcpp_anon_sym_protected, END_STATE)"

definition mozcpp_kw_819 :: "bool \<Rightarrow> codepoint \<Rightarrow> lex_case" where
  "mozcpp_kw_819 eof la = (None,
      if la = CH_s then ADVANCE 901 else END_STATE)"

definition mozcpp_kw_820 :: "bool \<Rightarrow> codepoint \<Rightarrow> lex_case" where
  "mozcpp_kw_820 eof la = (None,
      if la = CH_c then ADVANCE 902 else END_STATE)"

definition mozcpp_kw_821 :: "bool \<Rightarrow> codepoint \<Rightarrow> lex_case" where
  "mozcpp_kw_821 eof la = (None,
      if la = CH_I then ADVANCE 903 else
      if la = CH_U then ADVANCE 904 else END_STATE)"

definition mozcpp_kw_822 :: "bool \<Rightarrow> codepoint \<Rightarrow> lex_case" where
  "mozcpp_kw_822 eof la = (None,
      if la = CH_T then ADVANCE 905 else END_STATE)"

definition mozcpp_kw_823 :: "bool \<Rightarrow> codepoint \<Rightarrow> lex_case" where
  "mozcpp_kw_823 eof la = (None,
      if la = CH_S then ADVANCE 906 else END_STATE)"

definition mozcpp_kw_824 :: "bool \<Rightarrow> codepoint \<Rightarrow> lex_case" where
  "mozcpp_kw_824 eof la = (None,
      if la = CH_W then ADVANCE 907 else END_STATE)"

definition mozcpp_kw_825 :: "bool \<Rightarrow> codepoint \<Rightarrow> lex_case" where
  "mozcpp_kw_825 eof la = (None,
      if la = CH_A then ADVANCE 908 else END_STATE)"

definition mozcpp_kw_826 :: "bool \<Rightarrow> codepoint \<Rightarrow> lex_case" where
  "mozcpp_kw_826 eof la = (None,
      if la = CH_P then ADVANCE 909 else END_STATE)"

definition mozcpp_kw_827 :: "bool \<Rightarrow> codepoint \<Rightarrow> lex_case" where
  "mozcpp_kw_827 eof la = (None,
      if la = CH_R then ADVANCE 910 else END_STATE)"

definition mozcpp_kw_828 :: "bool \<Rightarrow> codepoint \<Rightarrow> lex_case" where
  "mozcpp_kw_828 eof la = (None,
      if la = CH_T then ADVANCE 911 else END_STATE)"

definition mozcpp_kw_829 :: "bool \<Rightarrow> codepoint \<Rightarrow> lex_case" where
  "mozcpp_kw_829 eof la = (None,
      if la = CH_T then ADVANCE 912 else END_STATE)"

definition mozcpp_kw_830 :: "bool \<Rightarrow> codepoint \<Rightarrow> lex_case" where
  "mozcpp_kw_830 eof la = (None,
      if la = CH_UNDERSCORE then ADVANCE 913 else END_STATE)"

definition mozcpp_kw_831 :: "bool \<Rightarrow> codepoint \<Rightarrow> lex_case" where
  "mozcpp_kw_831 eof la = (None,
      if la = CH_L then ADVANCE 914 else END_STATE)"

definition mozcpp_kw_832 :: "bool \<Rightarrow> codepoint \<Rightarrow> lex_case" where
  "mozcpp_kw_832 eof la = (None,
      if la = CH_N then ADVANCE 915 else END_STATE)"

definition mozcpp_kw_833 :: "bool \<Rightarrow> codepoint \<Rightarrow> lex_case" where
  "mozcpp_kw_833 eof la = (None,
      if la = CH_S then ADVANCE 916 else END_STATE)"

definition mozcpp_kw_834 :: "bool \<Rightarrow> codepoint \<Rightarrow> lex_case" where
  "mozcpp_kw_834 eof la = (None,
      if la = CH_R then ADVANCE 917 else END_STATE)"

definition mozcpp_kw_835 :: "bool \<Rightarrow> codepoint \<Rightarrow> lex_case" where
  "mozcpp_kw_835 eof la = (None,
      if la = CH_UNDERSCORE then ADVANCE 918 else END_STATE)"

definition mozcpp_kw_836 :: "bool \<Rightarrow> codepoint \<Rightarrow> lex_case" where
  "mozcpp_kw_836 eof la = (None,
      if la = CH_N then ADVANCE 919 else
      if la = CH_S then ADVANCE 920 else END_STATE)"

definition mozcpp_kw_837 :: "bool \<Rightarrow> codepoint \<Rightarrow> lex_case" where
  "mozcpp_kw_837 eof la = (None,
      if la = CH_E then ADVANCE 921 else
      if la = CH_O then ADVANCE 922 else END_STATE)"

definition mozcpp_kw_838 :: "bool \<Rightarrow> codepoint \<Rightarrow> lex_case" where
  "mozcpp_kw_838 eof la = (None,
      if la = CH_I then ADVANCE 923 else END_STATE)"

definition mozcpp_kw_839 :: "bool \<Rightarrow> codepoint \<Rightarrow> lex_case" where
  "mozcpp_kw_839 eof la = (None,
      if la = CH_N then ADVANCE 924 else END_STATE)"

definition mozcpp_kw_840 :: "bool \<Rightarrow> codepoint \<Rightarrow> lex_case" where
  "mozcpp_kw_840 eof la = (None,
      if la = CH_L then ADVANCE 925 else END_STATE)"

definition mozcpp_kw_841 :: "bool \<Rightarrow> codepoint \<Rightarrow> lex_case" where
  "mozcpp_kw_841 eof la = (None,
      if la = CH_L then ADVANCE 926 else END_STATE)"

definition mozcpp_kw_842 :: "bool \<Rightarrow> codepoint \<Rightarrow> lex_case" where
  "mozcpp_kw_842 eof la = (None,
      if la = CH_I then ADVANCE 927 else END_STATE)"

definition mozcpp_kw_843 :: "bool \<Rightarrow> codepoint \<Rightarrow> lex_case" where
  "mozcpp_kw_843 eof la = (None,
      if la = CH_T then ADVANCE 928 else END_STATE)"

definition mozcpp_kw_844 :: "bool \<Rightarrow> codepoint \<Rightarrow> lex_case" where
  "mozcpp_kw_844 eof la = (None,
      if la = CH_U then ADVANCE 929 else END_STATE)"

definition mozcpp_kw_845 :: "bool \<Rightarrow> codepoint \<Rightarrow> lex_case" where
  "mozcpp_kw_845 eof la = (None,
      if la = CH_S then ADVANCE 930 else END_STATE)"

definition mozcpp_kw_846 :: "bool \<Rightarrow> codepoint \<Rightarrow> lex_case" where
  "mozcpp_kw_846 eof la = (None,
      if la = CH_P then ADVANCE 931 else END_STATE)"

definition mozcpp_kw_847 :: "bool \<Rightarrow> codepoint \<Rightarrow> lex_case" where
  "mozcpp_kw_847 eof la = (None,
      if la = CH_R then ADVANCE 932 else END_STATE)"

definition mozcpp_kw_848 :: "bool \<Rightarrow> codepoint \<Rightarrow> lex_case" where
  "mozcpp_kw_848 eof la = (None,
      if la = CH_U then ADVANCE 933 else END_STATE)"

definition mozcpp_kw_849 :: "bool \<Rightarrow> codepoint \<Rightarrow> lex_case" where
  "mozcpp_kw_849 eof la = (None,
      if la = CH_L then ADVANCE 934 else END_STATE)"

definition mozcpp_kw_850 :: "bool \<Rightarrow> codepoint \<Rightarrow> lex_case" where
  "mozcpp_kw_850 eof la = (None,
      if la = CH_V then ADVANCE 935 else END_STATE)"

definition mozcpp_kw_851 :: "bool \<Rightarrow> codepoint \<Rightarrow> lex_case" where
  "mozcpp_kw_851 eof la = (None,
      if la = CH_E then ADVANCE 936 else END_STATE)"

definition mozcpp_kw_852 :: "bool \<Rightarrow> codepoint \<Rightarrow> lex_case" where
  "mozcpp_kw_852 eof la = (None,
      if la = CH_S then ADVANCE 937 else END_STATE)"

definition mozcpp_kw_853 :: "bool \<Rightarrow> codepoint \<Rightarrow> lex_case" where
  "mozcpp_kw_853 eof la = (None,
      if la = CH_M then ADVANCE 938 else
      if la = CH_N then ADVANCE 939 else END_STATE)"

definition mozcpp_kw_854 :: "bool \<Rightarrow> codepoint \<Rightarrow> lex_case" where
  "mozcpp_kw_854 eof la = (None,
      if la = CH_I then ADVANCE 940 else END_STATE)"

definition mozcpp_kw_855 :: "bool \<Rightarrow> codepoint \<Rightarrow> lex_case" where
  "mozcpp_kw_855 eof la = (None,
      if la = CH_P then ADVANCE 941 else END_STATE)"

definition mozcpp_kw_856 :: "bool \<Rightarrow> codepoint \<Rightarrow> lex_case" where
  "mozcpp_kw_856 eof la = (None,
      if la = CH_L then ADVANCE 942 else END_STATE)"

definition mozcpp_kw_857 :: "bool \<Rightarrow> codepoint \<Rightarrow> lex_case" where
  "mozcpp_kw_857 eof la = (None,
      if la = CH_T then ADVANCE 943 else END_STATE)"

definition mozcpp_kw_858 :: "bool \<Rightarrow> codepoint \<Rightarrow> lex_case" where
  "mozcpp_kw_858 eof la = (None,
      if la = CH_M then ADVANCE 944 else END_STATE)"

definition mozcpp_kw_859 :: "bool \<Rightarrow> codepoint \<Rightarrow> lex_case" where
  "mozcpp_kw_859 eof la = (None,
      if la = CH_N then ADVANCE 945 else END_STATE)"

definition mozcpp_kw_860 :: "bool \<Rightarrow> codepoint \<Rightarrow> lex_case" where
  "mozcpp_kw_860 eof la = (None,
      if la = CH_R then ADVANCE 946 else END_STATE)"

definition mozcpp_kw_861 :: "bool \<Rightarrow> codepoint \<Rightarrow> lex_case" where
  "mozcpp_kw_861 eof la = (None,
      if la = CH_M then ADVANCE 947 else END_STATE)"

definition mozcpp_kw_862 :: "bool \<Rightarrow> codepoint \<Rightarrow> lex_case" where
  "mozcpp_kw_862 eof la = (None,
      if la = CH_R then ADVANCE 948 else END_STATE)"

definition mozcpp_kw_863 :: "bool \<Rightarrow> codepoint \<Rightarrow> lex_case" where
  "mozcpp_kw_863 eof la = (None,
      if la = CH_R then ADVANCE 949 else END_STATE)"

definition mozcpp_kw_864 :: "bool \<Rightarrow> codepoint \<Rightarrow> lex_case" where
  "mozcpp_kw_864 eof la = (None,
      if la = CH_T then ADVANCE 950 else END_STATE)"

definition mozcpp_kw_865 :: "bool \<Rightarrow> codepoint \<Rightarrow> lex_case" where
  "mozcpp_kw_865 eof la = (None,
      if la = CH_G then ADVANCE 951 else END_STATE)"

definition mozcpp_kw_866 :: "bool \<Rightarrow> codepoint \<Rightarrow> lex_case" where
  "mozcpp_kw_866 eof la = (None,
      if la = CH_I then ADVANCE 952 else END_STATE)"

definition mozcpp_kw_867 :: "bool \<Rightarrow> codepoint \<Rightarrow> lex_case" where
  "mozcpp_kw_867 eof la = (None,
      if la = CH_S then ADVANCE 953 else END_STATE)"

definition mozcpp_kw_868 :: "bool \<Rightarrow> codepoint \<Rightarrow> lex_case" where
  "mozcpp_kw_868 eof la = (None,
      if la = CH_UNDERSCORE then ADVANCE 954 else END_STATE)"

definition mozcpp_kw_869 :: "bool \<Rightarrow> codepoint \<Rightarrow> lex_case" where
  "mozcpp_kw_869 eof la = (None,
      if la = CH_S then ADVANCE 955 else END_STATE)"

definition mozcpp_kw_870 :: "bool \<Rightarrow> codepoint \<Rightarrow> lex_case" where
  "mozcpp_kw_870 eof la = (None,
      if la = CH_D then ADVANCE 956 else END_STATE)"

definition mozcpp_kw_871 :: "bool \<Rightarrow> codepoint \<Rightarrow> lex_case" where
  "mozcpp_kw_871 eof la = (None,
      if la = CH_I then ADVANCE 957 else END_STATE)"

definition mozcpp_kw_872 :: "bool \<Rightarrow> codepoint \<Rightarrow> lex_case" where
  "mozcpp_kw_872 eof la = (None,
      if la = CH_E then ADVANCE 958 else END_STATE)"

definition mozcpp_kw_873 :: "bool \<Rightarrow> codepoint \<Rightarrow> lex_case" where
  "mozcpp_kw_873 eof la = (None,
      if la = CH_C then ADVANCE 959 else END_STATE)"

definition mozcpp_kw_874 :: "bool \<Rightarrow> codepoint \<Rightarrow> lex_case" where
  "mozcpp_kw_874 eof la = (None,
      if la = CH_UNDERSCORE then ADVANCE 960 else END_STATE)"

definition mozcpp_kw_875 :: "bool \<Rightarrow> codepoint \<Rightarrow> lex_case" where
  "mozcpp_kw_875 eof la = (None,
      if la = CH_A then ADVANCE 961 else END_STATE)"

definition mozcpp_kw_876 :: "bool \<Rightarrow> codepoint \<Rightarrow> lex_case" where
  "mozcpp_kw_876 eof la = (None,
      if la = CH_L then ADVANCE 962 else END_STATE)"

definition mozcpp_kw_877 :: "bool \<Rightarrow> codepoint \<Rightarrow> lex_case" where
  "mozcpp_kw_877 eof la = (None,
      if la = CH_L then ADVANCE 963 else END_STATE)"

definition mozcpp_kw_878 :: "bool \<Rightarrow> codepoint \<Rightarrow> lex_case" where
  "mozcpp_kw_878 eof la = (None,
      if la = CH_UNDERSCORE then ADVANCE 964 else END_STATE)"

definition mozcpp_kw_879 :: "bool \<Rightarrow> codepoint \<Rightarrow> lex_case" where
  "mozcpp_kw_879 eof la = (None,
      if la = CH_A then ADVANCE 965 else END_STATE)"

definition mozcpp_kw_880 :: "bool \<Rightarrow> codepoint \<Rightarrow> lex_case" where
  "mozcpp_kw_880 eof la = (None,
      if la = CH_UNDERSCORE then ADVANCE 966 else END_STATE)"

definition mozcpp_kw_881 :: "bool \<Rightarrow> codepoint \<Rightarrow> lex_case" where
  "mozcpp_kw_881 eof la = (None,
      if la = CH_K then ADVANCE 967 else END_STATE)"

definition mozcpp_kw_882 :: "bool \<Rightarrow> codepoint \<Rightarrow> lex_case" where
  "mozcpp_kw_882 eof la = (None,
      if la = CH_Y then ADVANCE 968 else END_STATE)"

definition mozcpp_kw_883 :: "bool \<Rightarrow> codepoint \<Rightarrow> lex_case" where
  "mozcpp_kw_883 eof la = (None,
      if la = CH_P then ADVANCE 969 else END_STATE)"

definition mozcpp_kw_884 :: "bool \<Rightarrow> codepoint \<Rightarrow> lex_case" where
  "mozcpp_kw_884 eof la = (None,
      if la = CH_R then ADVANCE 970 else END_STATE)"

definition mozcpp_kw_885 :: "bool \<Rightarrow> codepoint \<Rightarrow> lex_case" where
  "mozcpp_kw_885 eof la = (None,
      if la = CH_Y then ADVANCE 971 else END_STATE)"

definition mozcpp_kw_886 :: "bool \<Rightarrow> codepoint \<Rightarrow> lex_case" where
  "mozcpp_kw_886 eof la = (None,
      if la = CH_S then ADVANCE 972 else END_STATE)"

definition mozcpp_kw_887 :: "bool \<Rightarrow> codepoint \<Rightarrow> lex_case" where
  "mozcpp_kw_887 eof la = (None,
      if la = CH_W then ADVANCE 973 else END_STATE)"

definition mozcpp_kw_888 :: "bool \<Rightarrow> codepoint \<Rightarrow> lex_case" where
  "mozcpp_kw_888 eof la = (None,
      if la = CH_UNDERSCORE then ADVANCE 974 else END_STATE)"

definition mozcpp_kw_889 :: "bool \<Rightarrow> codepoint \<Rightarrow> lex_case" where
  "mozcpp_kw_889 eof la = (None,
      if la = CH_e then ADVANCE 975 else END_STATE)"

definition mozcpp_kw_890 :: "bool \<Rightarrow> codepoint \<Rightarrow> lex_case" where
  "mozcpp_kw_890 eof la = (Some mozcpp_anon_sym___declspec, END_STATE)"

definition mozcpp_kw_891 :: "bool \<Rightarrow> codepoint \<Rightarrow> lex_case" where
  "mozcpp_kw_891 eof la = (None,
      if la = CH_n then ADVANCE 976 else END_STATE)"

definition mozcpp_kw_892 :: "bool \<Rightarrow> codepoint \<Rightarrow> lex_case" where
  "mozcpp_kw_892 eof la = (Some mozcpp_anon_sym___fastcall, END_STATE)"

definition mozcpp_kw_893 :: "bool \<Rightarrow> codepoint \<Rightarrow> lex_case" where
  "mozcpp_kw_893 eof la = (None,
      if la = CH_i then ADVANCE 977 else END_STATE)"

definition mozcpp_kw_894 :: "bool \<Rightarrow> codepoint \<Rightarrow> lex_case" where
  "mozcpp_kw_894 eof la = (Some mozcpp_anon_sym___inline__u, END_STATE)"

definition mozcpp_kw_895 :: "bool \<Rightarrow> codepoint \<Rightarrow> lex_case" where
  "mozcpp_kw_895 eof la = (Some mozcpp_sym_ms_restrict_modifier,
      if la = CH_UNDERSCORE then ADVANCE 978 else END_STATE)"

definition mozcpp_kw_896 :: "bool \<Rightarrow> codepoint \<Rightarrow> lex_case" where
  "mozcpp_kw_896 eof la = (Some mozcpp_anon_sym___thiscall, END_STATE)"

definition mozcpp_kw_897 :: "bool \<Rightarrow> codepoint \<Rightarrow> lex_case" where
  "mozcpp_kw_897 eof la = (None,
      if la = CH_d then ADVANCE 979 else END_STATE)"

definition mozcpp_kw_898 :: "bool \<Rightarrow> codepoint \<Rightarrow> lex_case" where
  "mozcpp_kw_898 eof la = (None,
      if la = CH_l then ADVANCE 980 else END_STATE)"

definition mozcpp_kw_899 :: "bool \<Rightarrow> codepoint \<Rightarrow> lex_case" where
  "mozcpp_kw_899 eof la = (None,
      if la = CH_UNDERSCORE then ADVANCE 981 else END_STATE)"

definition mozcpp_kw_900 :: "bool \<Rightarrow> codepoint \<Rightarrow> lex_case" where
  "mozcpp_kw_900 eof la = (Some mozcpp_anon_sym__unaligned, END_STATE)"

definition mozcpp_kw_901 :: "bool \<Rightarrow> codepoint \<Rightarrow> lex_case" where
  "mozcpp_kw_901 eof la = (None,
      if la = CH_e then ADVANCE 982 else END_STATE)"

definition mozcpp_kw_902 :: "bool \<Rightarrow> codepoint \<Rightarrow> lex_case" where
  "mozcpp_kw_902 eof la = (None,
      if la = CH_a then ADVANCE 983 else END_STATE)"

definition mozcpp_kw_903 :: "bool \<Rightarrow> codepoint \<Rightarrow> lex_case" where
  "mozcpp_kw_903 eof la = (None,
      if la = CH_N then ADVANCE 984 else END_STATE)"

definition mozcpp_kw_904 :: "bool \<Rightarrow> codepoint \<Rightarrow> lex_case" where
  "mozcpp_kw_904 eof la = (None,
      if la = CH_N then ADVANCE 985 else END_STATE)"

definition mozcpp_kw_905 :: "bool \<Rightarrow> codepoint \<Rightarrow> lex_case" where
  "mozcpp_kw_905 eof la = (None,
      if la = CH_UNDERSCORE then ADVANCE 986 else END_STATE)"

definition mozcpp_kw_906 :: "bool \<Rightarrow> codepoint \<Rightarrow> lex_case" where
  "mozcpp_kw_906 eof la = (None,
      if la = CH_P then ADVANCE 987 else END_STATE)"

definition mozcpp_kw_907 :: "bool \<Rightarrow> codepoint \<Rightarrow> lex_case" where
  "mozcpp_kw_907 eof la = (None,
      if la = CH_R then ADVANCE 988 else END_STATE)"

definition mozcpp_kw_908 :: "bool \<Rightarrow> codepoint \<Rightarrow> lex_case" where
  "mozcpp_kw_908 eof la = (None,
      if la = CH_P then ADVANCE 989 else END_STATE)"

definition mozcpp_kw_909 :: "bool \<Rightarrow> codepoint \<Rightarrow> lex_case" where
  "mozcpp_kw_909 eof la = (None,
      if la = CH_E then ADVANCE 990 else END_STATE)"

definition mozcpp_kw_910 :: "bool \<Rightarrow> codepoint \<Rightarrow> lex_case" where
  "mozcpp_kw_910 eof la = (None,
      if la = CH_A then ADVANCE 991 else END_STATE)"

definition mozcpp_kw_911 :: "bool \<Rightarrow> codepoint \<Rightarrow> lex_case" where
  "mozcpp_kw_911 eof la = (None,
      if la = CH_O then ADVANCE 992 else END_STATE)"

definition mozcpp_kw_912 :: "bool \<Rightarrow> codepoint \<Rightarrow> lex_case" where
  "mozcpp_kw_912 eof la = (None,
      if la = CH_E then ADVANCE 993 else END_STATE)"

definition mozcpp_kw_913 :: "bool \<Rightarrow> codepoint \<Rightarrow> lex_case" where
  "mozcpp_kw_913 eof la = (None,
      if la = CH_I then ADVANCE 994 else END_STATE)"

definition mozcpp_kw_914 :: "bool \<Rightarrow> codepoint \<Rightarrow> lex_case" where
  "mozcpp_kw_914 eof la = (None,
      if la = CH_A then ADVANCE 995 else END_STATE)"

definition mozcpp_kw_915 :: "bool \<Rightarrow> codepoint \<Rightarrow> lex_case" where
  "mozcpp_kw_915 eof la = (None,
      if la = CH_UNDERSCORE then ADVANCE 996 else END_STATE)"

definition mozcpp_kw_916 :: "bool \<Rightarrow> codepoint \<Rightarrow> lex_case" where
  "mozcpp_kw_916 eof la = (None,
      if la = CH_E then ADVANCE 997 else END_STATE)"

definition mozcpp_kw_917 :: "bool \<Rightarrow> codepoint \<Rightarrow> lex_case" where
  "mozcpp_kw_917 eof la = (None,
      if la = CH_O then ADVANCE 998 else END_STATE)"

definition mozcpp_kw_918 :: "bool \<Rightarrow> codepoint \<Rightarrow> lex_case" where
  "mozcpp_kw_918 eof la = (None,
      if la = CH_P then ADVANCE 999 else END_STATE)"

definition mozcpp_kw_919 :: "bool \<Rightarrow> codepoint \<Rightarrow> lex_case" where
  "mozcpp_kw_919 eof la = (None,
      if la = CH_A then ADVANCE 1000 else END_STATE)"

definition mozcpp_kw_920 :: "bool \<Rightarrow> codepoint \<Rightarrow> lex_case" where
  "mozcpp_kw_920 eof la = (None,
      if la = CH_A then ADVANCE 1001 else END_STATE)"

definition mozcpp_kw_921 :: "bool \<Rightarrow> codepoint \<Rightarrow> lex_case" where
  "mozcpp_kw_921 eof la = (None,
      if la = CH_V then ADVANCE 1002 else END_STATE)"

definition mozcpp_kw_922 :: "bool \<Rightarrow> codepoint \<Rightarrow> lex_case" where
  "mozcpp_kw_922 eof la = (None,
      if la = CH_R then ADVANCE 1003 else
      if la = CH_UNDERSCORE then ADVANCE 1004 else END_STATE)"

definition mozcpp_kw_923 :: "bool \<Rightarrow> codepoint \<Rightarrow> lex_case" where
  "mozcpp_kw_923 eof la = (None,
      if la = CH_G then ADVANCE 1005 else END_STATE)"

definition mozcpp_kw_924 :: "bool \<Rightarrow> codepoint \<Rightarrow> lex_case" where
  "mozcpp_kw_924 eof la = (None,
      if la = CH_S then ADVANCE 1006 else END_STATE)"

definition mozcpp_kw_925 :: "bool \<Rightarrow> codepoint \<Rightarrow> lex_case" where
  "mozcpp_kw_925 eof la = (None,
      if la = CH_L then ADVANCE 1007 else END_STATE)"

definition mozcpp_kw_926 :: "bool \<Rightarrow> codepoint \<Rightarrow> lex_case" where
  "mozcpp_kw_926 eof la = (None,
      if la = CH_A then ADVANCE 1008 else END_STATE)"

definition mozcpp_kw_927 :: "bool \<Rightarrow> codepoint \<Rightarrow> lex_case" where
  "mozcpp_kw_927 eof la = (None,
      if la = CH_T then ADVANCE 1009 else END_STATE)"

definition mozcpp_kw_928 :: "bool \<Rightarrow> codepoint \<Rightarrow> lex_case" where
  "mozcpp_kw_928 eof la = (None,
      if la = CH_UNDERSCORE then ADVANCE 1010 else END_STATE)"

definition mozcpp_kw_929 :: "bool \<Rightarrow> codepoint \<Rightarrow> lex_case" where
  "mozcpp_kw_929 eof la = (None,
      if la = CH_T then ADVANCE 1011 else END_STATE)"

definition mozcpp_kw_930 :: "bool \<Rightarrow> codepoint \<Rightarrow> lex_case" where
  "mozcpp_kw_930 eof la = (None,
      if la = CH_S then ADVANCE 1012 else END_STATE)"

definition mozcpp_kw_931 :: "bool \<Rightarrow> codepoint \<Rightarrow> lex_case" where
  "mozcpp_kw_931 eof la = (None,
      if la = CH_T then ADVANCE 1013 else END_STATE)"

definition mozcpp_kw_932 :: "bool \<Rightarrow> codepoint \<Rightarrow> lex_case" where
  "mozcpp_kw_932 eof la = (None,
      if la = CH_T then ADVANCE 1014 else END_STATE)"

definition mozcpp_kw_933 :: "bool \<Rightarrow> codepoint \<Rightarrow> lex_case" where
  "mozcpp_kw_933 eof la = (None,
      if la = CH_N then ADVANCE 1015 else END_STATE)"

definition mozcpp_kw_934 :: "bool \<Rightarrow> codepoint \<Rightarrow> lex_case" where
  "mozcpp_kw_934 eof la = (None,
      if la = CH_L then ADVANCE 1016 else END_STATE)"

definition mozcpp_kw_935 :: "bool \<Rightarrow> codepoint \<Rightarrow> lex_case" where
  "mozcpp_kw_935 eof la = (None,
      if la = CH_E then ADVANCE 1017 else END_STATE)"

definition mozcpp_kw_936 :: "bool \<Rightarrow> codepoint \<Rightarrow> lex_case" where
  "mozcpp_kw_936 eof la = (None,
      if la = CH_T then ADVANCE 1018 else END_STATE)"

definition mozcpp_kw_937 :: "bool \<Rightarrow> codepoint \<Rightarrow> lex_case" where
  "mozcpp_kw_937 eof la = (None,
      if la = CH_E then ADVANCE 1019 else END_STATE)"

definition mozcpp_kw_938 :: "bool \<Rightarrow> codepoint \<Rightarrow> lex_case" where
  "mozcpp_kw_938 eof la = (None,
      if la = CH_E then ADVANCE 1020 else END_STATE)"

definition mozcpp_kw_939 :: "bool \<Rightarrow> codepoint \<Rightarrow> lex_case" where
  "mozcpp_kw_939 eof la = (None,
      if la = CH_O then ADVANCE 1021 else END_STATE)"

definition mozcpp_kw_940 :: "bool \<Rightarrow> codepoint \<Rightarrow> lex_case" where
  "mozcpp_kw_940 eof la = (None,
      if la = CH_N then ADVANCE 1022 else END_STATE)"

definition mozcpp_kw_941 :: "bool \<Rightarrow> codepoint \<Rightarrow> lex_case" where
  "mozcpp_kw_941 eof la = (None,
      if la = CH_UNDERSCORE then ADVANCE 1023 else END_STATE)"

definition mozcpp_kw_942 :: "bool \<Rightarrow> codepoint \<Rightarrow> lex_case" where
  "mozcpp_kw_942 eof la = (Some mozcpp_anon_sym_MOZ_NONNULL,
      if la = CH_UNDERSCORE then ADVANCE 1024 else END_STATE)"

definition mozcpp_kw_943 :: "bool \<Rightarrow> codepoint \<Rightarrow> lex_case" where
  "mozcpp_kw_943 eof la = (None,
      if la = CH_O then ADVANCE 1025 else END_STATE)"

definition mozcpp_kw_944 :: "bool \<Rightarrow> codepoint \<Rightarrow> lex_case" where
  "mozcpp_kw_944 eof la = (None,
      if la = CH_M then ADVANCE 1026 else END_STATE)"

definition mozcpp_kw_945 :: "bool \<Rightarrow> codepoint \<Rightarrow> lex_case" where
  "mozcpp_kw_945 eof la = (None,
      if la = CH_I then ADVANCE 1027 else END_STATE)"

definition mozcpp_kw_946 :: "bool \<Rightarrow> codepoint \<Rightarrow> lex_case" where
  "mozcpp_kw_946 eof la = (None,
      if la = CH_A then ADVANCE 1028 else END_STATE)"

definition mozcpp_kw_947 :: "bool \<Rightarrow> codepoint \<Rightarrow> lex_case" where
  "mozcpp_kw_947 eof la = (None,
      if la = CH_P then ADVANCE 1029 else END_STATE)"

definition mozcpp_kw_948 :: "bool \<Rightarrow> codepoint \<Rightarrow> lex_case" where
  "mozcpp_kw_948 eof la = (None,
      if la = CH_N then ADVANCE 1030 else END_STATE)"

definition mozcpp_kw_949 :: "bool \<Rightarrow> codepoint \<Rightarrow> lex_case" where
  "mozcpp_kw_949 eof la = (None,
      if la = CH_E then ADVANCE 1031 else END_STATE)"

definition mozcpp_kw_950 :: "bool \<Rightarrow> codepoint \<Rightarrow> lex_case" where
  "mozcpp_kw_950 eof la = (None,
      if la = CH_H then ADVANCE 1032 else END_STATE)"

definition mozcpp_kw_951 :: "bool \<Rightarrow> codepoint \<Rightarrow> lex_case" where
  "mozcpp_kw_951 eof la = (None,
      if la = CH_L then ADVANCE 1033 else END_STATE)"

definition mozcpp_kw_952 :: "bool \<Rightarrow> codepoint \<Rightarrow> lex_case" where
  "mozcpp_kw_952 eof la = (None,
      if la = CH_T then ADVANCE 1034 else END_STATE)"

definition mozcpp_kw_953 :: "bool \<Rightarrow> codepoint \<Rightarrow> lex_case" where
  "mozcpp_kw_953 eof la = (None,
      if la = CH_E then ADVANCE 1035 else END_STATE)"

definition mozcpp_kw_954 :: "bool \<Rightarrow> codepoint \<Rightarrow> lex_case" where
  "mozcpp_kw_954 eof la = (None,
      if la = CH_R then ADVANCE 1036 else END_STATE)"

definition mozcpp_kw_955 :: "bool \<Rightarrow> codepoint \<Rightarrow> lex_case" where
  "mozcpp_kw_955 eof la = (None,
      if la = CH_A then ADVANCE 1037 else END_STATE)"

definition mozcpp_kw_956 :: "bool \<Rightarrow> codepoint \<Rightarrow> lex_case" where
  "mozcpp_kw_956 eof la = (None,
      if la = CH_UNDERSCORE then ADVANCE 1038 else END_STATE)"

definition mozcpp_kw_957 :: "bool \<Rightarrow> codepoint \<Rightarrow> lex_case" where
  "mozcpp_kw_957 eof la = (None,
      if la = CH_S then ADVANCE 1039 else END_STATE)"

definition mozcpp_kw_958 :: "bool \<Rightarrow> codepoint \<Rightarrow> lex_case" where
  "mozcpp_kw_958 eof la = (None,
      if la = CH_D then ADVANCE 1040 else END_STATE)"

definition mozcpp_kw_959 :: "bool \<Rightarrow> codepoint \<Rightarrow> lex_case" where
  "mozcpp_kw_959 eof la = (None,
      if la = CH_L then ADVANCE 1041 else END_STATE)"

definition mozcpp_kw_960 :: "bool \<Rightarrow> codepoint \<Rightarrow> lex_case" where
  "mozcpp_kw_960 eof la = (None,
      if la = CH_C then ADVANCE 1042 else
      if la = CH_L then ADVANCE 1043 else END_STATE)"

definition mozcpp_kw_961 :: "bool \<Rightarrow> codepoint \<Rightarrow> lex_case" where
  "mozcpp_kw_961 eof la = (None,
      if la = CH_R then ADVANCE 1044 else END_STATE)"

definition mozcpp_kw_962 :: "bool \<Rightarrow> codepoint \<Rightarrow> lex_case" where
  "mozcpp_kw_962 eof la = (None,
      if la = CH_UNDERSCORE then ADVANCE 1045 else END_STATE)"

definition mozcpp_kw_963 :: "bool \<Rightarrow> codepoint \<Rightarrow> lex_case" where
  "mozcpp_kw_963 eof la = (None,
      if la = CH_A then ADVANCE 1046 else END_STATE)"

definition mozcpp_kw_964 :: "bool \<Rightarrow> codepoint \<Rightarrow> lex_case" where
  "mozcpp_kw_964 eof la = (None,
      if la = CH_R then ADVANCE 1047 else END_STATE)"

definition mozcpp_kw_965 :: "bool \<Rightarrow> codepoint \<Rightarrow> lex_case" where
  "mozcpp_kw_965 eof la = (None,
      if la = CH_B then ADVANCE 1048 else END_STATE)"

definition mozcpp_kw_966 :: "bool \<Rightarrow> codepoint \<Rightarrow> lex_case" where
  "mozcpp_kw_966 eof la = (None,
      if la = CH_S then ADVANCE 1049 else END_STATE)"

definition mozcpp_kw_967 :: "bool \<Rightarrow> codepoint \<Rightarrow> lex_case" where
  "mozcpp_kw_967 eof la = (None,
      if la = CH_L then ADVANCE 1050 else END_STATE)"

definition mozcpp_kw_968 :: "bool \<Rightarrow> codepoint \<Rightarrow> lex_case" where
  "mozcpp_kw_968 eof la = (None,
      if la = CH_UNDERSCORE then ADVANCE 1051 else END_STATE)"

definition mozcpp_kw_969 :: "bool \<Rightarrow> codepoint \<Rightarrow> lex_case" where
  "mozcpp_kw_969 eof la = (None,
      if la = CH_E then ADVANCE 1052 else END_STATE)"

definition mozcpp_kw_970 :: "bool \<Rightarrow> codepoint \<Rightarrow> lex_case" where
  "mozcpp_kw_970 eof la = (None,
      if la = CH_A then ADVANCE 1053 else END_STATE)"

definition mozcpp_kw_971 :: "bool \<Rightarrow> codepoint \<Rightarrow> lex_case" where
  "mozcpp_kw_971 eof la = (None,
      if la = CH_UNDERSCORE then ADVANCE 1054 else END_STATE)"

definition mozcpp_kw_972 :: "bool \<Rightarrow> codepoint \<Rightarrow> lex_case" where
  "mozcpp_kw_972 eof la = (None,
      if la = CH_P then ADVANCE 1055 else END_STATE)"

definition mozcpp_kw_973 :: "bool \<Rightarrow> codepoint \<Rightarrow> lex_case" where
  "mozcpp_kw_973 eof la = (None,
      if la = CH_R then ADVANCE 1056 else END_STATE)"

definition mozcpp_kw_974 :: "bool \<Rightarrow> codepoint \<Rightarrow> lex_case" where
  "mozcpp_kw_974 eof la = (Some mozcpp_anon_sym___alignof__u, END_STATE)"

definition mozcpp_kw_975 :: "bool \<Rightarrow> codepoint \<Rightarrow> lex_case" where
  "mozcpp_kw_975 eof la = (Some mozcpp_anon_sym___attribute,
      if la = CH_UNDERSCORE then ADVANCE 1057 else END_STATE)"

definition mozcpp_kw_976 :: "bool \<Rightarrow> codepoint \<Rightarrow> lex_case" where
  "mozcpp_kw_976 eof la = (None,
      if la = CH_UNDERSCORE then ADVANCE 1058 else END_STATE)"

definition mozcpp_kw_977 :: "bool \<Rightarrow> codepoint \<Rightarrow> lex_case" where
  "mozcpp_kw_977 eof la = (None,
      if la = CH_n then ADVANCE 1059 else END_STATE)"

definition mozcpp_kw_978 :: "bool \<Rightarrow> codepoint \<Rightarrow> lex_case" where
  "mozcpp_kw_978 eof la = (None,
      if la = CH_UNDERSCORE then ADVANCE 1060 else END_STATE)"

definition mozcpp_kw_979 :: "bool \<Rightarrow> codepoint \<Rightarrow> lex_case" where
  "mozcpp_kw_979 eof la = (Some mozcpp_anon_sym___unaligned, END_STATE)"

definition mozcpp_kw_980 :: "bool \<Rightarrow> codepoint \<Rightarrow> lex_case" where
  "mozcpp_kw_980 eof la = (None,
      if la = CH_l then ADVANCE 1061 else END_STATE)"

definition mozcpp_kw_981 :: "bool \<Rightarrow> codepoint \<Rightarrow> lex_case" where
  "mozcpp_kw_981 eof la = (None,
      if la = CH_UNDERSCORE then ADVANCE 1062 else END_STATE)"

definition mozcpp_kw_982 :: "bool \<Rightarrow> codepoint \<Rightarrow> lex_case" where
  "mozcpp_kw_982 eof la = (None,
      if la = CH_r then ADVANCE 1063 else END_STATE)"

definition mozcpp_kw_983 :: "bool \<Rightarrow> codepoint \<Rightarrow> lex_case" where
  "mozcpp_kw_983 eof la = (None,
      if la = CH_l then ADVANCE 1064 else END_STATE)"

definition mozcpp_kw_984 :: "bool \<Rightarrow> codepoint \<Rightarrow> lex_case" where
  "mozcpp_kw_984 eof la = (None,
      if la = CH_S then ADVANCE 1065 else END_STATE)"

definition mozcpp_kw_985 :: "bool \<Rightarrow> codepoint \<Rightarrow> lex_case" where
  "mozcpp_kw_985 eof la = (None,
      if la = CH_W then ADVANCE 1066 else END_STATE)"

definition mozcpp_kw_986 :: "bool \<Rightarrow> codepoint \<Rightarrow> lex_case" where
  "mozcpp_kw_986 eof la = (None,
      if la = CH_A then ADVANCE 1067 else END_STATE)"

definition mozcpp_kw_987 :: "bool \<Rightarrow> codepoint \<Rightarrow> lex_case" where
  "mozcpp_kw_987 eof la = (None,
      if la = CH_E then ADVANCE 1068 else END_STATE)"

definition mozcpp_kw_988 :: "bool \<Rightarrow> codepoint \<Rightarrow> lex_case" where
  "mozcpp_kw_988 eof la = (None,
      if la = CH_A then ADVANCE 1069 else END_STATE)"

definition mozcpp_kw_989 :: "bool \<Rightarrow> codepoint \<Rightarrow> lex_case" where
  "mozcpp_kw_989 eof la = (None,
      if la = CH_I then ADVANCE 1070 else END_STATE)"

definition mozcpp_kw_990 :: "bool \<Rightarrow> codepoint \<Rightarrow> lex_case" where
  "mozcpp_kw_990 eof la = (None,
      if la = CH_C then ADVANCE 1071 else END_STATE)"

definition mozcpp_kw_991 :: "bool \<Rightarrow> codepoint \<Rightarrow> lex_case" where
  "mozcpp_kw_991 eof la = (None,
      if la = CH_P then ADVANCE 1072 else END_STATE)"

definition mozcpp_kw_992 :: "bool \<Rightarrow> codepoint \<Rightarrow> lex_case" where
  "mozcpp_kw_992 eof la = (None,
      if la = CH_R then ADVANCE 1073 else END_STATE)"

definition mozcpp_kw_993 :: "bool \<Rightarrow> codepoint \<Rightarrow> lex_case" where
  "mozcpp_kw_993 eof la = (None,
      if la = CH_M then ADVANCE 1074 else END_STATE)"

definition mozcpp_kw_994 :: "bool \<Rightarrow> codepoint \<Rightarrow> lex_case" where
  "mozcpp_kw_994 eof la = (None,
      if la = CH_N then ADVANCE 1075 else END_STATE)"

definition mozcpp_kw_995 :: "bool \<Rightarrow> codepoint \<Rightarrow> lex_case" where
  "mozcpp_kw_995 eof la = (None,
      if la = CH_C then ADVANCE 1076 else END_STATE)"

definition mozcpp_kw_996 :: "bool \<Rightarrow> codepoint \<Rightarrow> lex_case" where
  "mozcpp_kw_996 eof la = (None,
      if la = CH_S then ADVANCE 1077 else END_STATE)"

definition mozcpp_kw_997 :: "bool \<Rightarrow> codepoint \<Rightarrow> lex_case" where
  "mozcpp_kw_997 eof la = (None,
      if la = CH_UNDERSCORE then ADVANCE 1078 else END_STATE)"

definition mozcpp_kw_998 :: "bool \<Rightarrow> codepoint \<Rightarrow> lex_case" where
  "mozcpp_kw_998 eof la = (None,
      if la = CH_U then ADVANCE 1079 else END_STATE)"

definition mozcpp_kw_999 :: "bool \<Rightarrow> codepoint \<Rightarrow> lex_case" where
  "mozcpp_kw_999 eof la = (None,
      if la = CH_R then ADVANCE 1080 else END_STATE)"

definition mozcpp_kw_1000 :: "bool \<Rightarrow> codepoint \<Rightarrow> lex_case" where
  "mozcpp_kw_1000 eof la = (None,
      if la = CH_L then ADVANCE 1081 else END_STATE)"

definition mozcpp_kw_1001 :: "bool \<Rightarrow> codepoint \<Rightarrow> lex_case" where
  "mozcpp_kw_1001 eof la = (None,
      if la = CH_N then ADVANCE 1082 else END_STATE)"

definition mozcpp_kw_1002 :: "bool \<Rightarrow> codepoint \<Rightarrow> lex_case" where
  "mozcpp_kw_1002 eof la = (None,
      if la = CH_E then ADVANCE 1083 else END_STATE)"

definition mozcpp_kw_1003 :: "bool \<Rightarrow> codepoint \<Rightarrow> lex_case" where
  "mozcpp_kw_1003 eof la = (None,
      if la = CH_E then ADVANCE 1084 else END_STATE)"

definition mozcpp_kw_1004 :: "bool \<Rightarrow> codepoint \<Rightarrow> lex_case" where
  "mozcpp_kw_1004 eof la = (None,
      if la = CH_S then ADVANCE 1085 else END_STATE)"

definition mozcpp_kw_1005 :: "bool \<Rightarrow> codepoint \<Rightarrow> lex_case" where
  "mozcpp_kw_1005 eof la = (None,
      if la = CH_N then ADVANCE 1086 else END_STATE)"

definition mozcpp_kw_1006 :: "bool \<Rightarrow> codepoint \<Rightarrow> lex_case" where
  "mozcpp_kw_1006 eof la = (None,
      if la = CH_I then ADVANCE 1087 else END_STATE)"

definition mozcpp_kw_1007 :: "bool \<Rightarrow> codepoint \<Rightarrow> lex_case" where
  "mozcpp_kw_1007 eof la = (None,
      if la = CH_O then ADVANCE 1088 else END_STATE)"

definition mozcpp_kw_1008 :: "bool \<Rightarrow> codepoint \<Rightarrow> lex_case" where
  "mozcpp_kw_1008 eof la = (None,
      if la = CH_S then ADVANCE 1089 else END_STATE)"

definition mozcpp_kw_1009 :: "bool \<Rightarrow> codepoint \<Rightarrow> lex_case" where
  "mozcpp_kw_1009 eof la = (Some mozcpp_anon_sym_MOZ_IMPLICIT, END_STATE)"

definition mozcpp_kw_1010 :: "bool \<Rightarrow> codepoint \<Rightarrow> lex_case" where
  "mozcpp_kw_1010 eof la = (None,
      if la = CH_T then ADVANCE 1090 else END_STATE)"

definition mozcpp_kw_1011 :: "bool \<Rightarrow> codepoint \<Rightarrow> lex_case" where
  "mozcpp_kw_1011 eof la = (None,
      if la = CH_S then ADVANCE 1091 else END_STATE)"

definition mozcpp_kw_1012 :: "bool \<Rightarrow> codepoint \<Rightarrow> lex_case" where
  "mozcpp_kw_1012 eof la = (None,
      if la = CH_UNDERSCORE then ADVANCE 1092 else END_STATE)"

definition mozcpp_kw_1013 :: "bool \<Rightarrow> codepoint \<Rightarrow> lex_case" where
  "mozcpp_kw_1013 eof la = (None,
      if la = CH_R then ADVANCE 1093 else END_STATE)"

definition mozcpp_kw_1014 :: "bool \<Rightarrow> codepoint \<Rightarrow> lex_case" where
  "mozcpp_kw_1014 eof la = (None,
      if la = CH_P then ADVANCE 1094 else END_STATE)"

definition mozcpp_kw_1015 :: "bool \<Rightarrow> codepoint \<Rightarrow> lex_case" where
  "mozcpp_kw_1015 eof la = (None,
      if la = CH_U then ADVANCE 1095 else END_STATE)"

definition mozcpp_kw_1016 :: "bool \<Rightarrow> codepoint \<Rightarrow> lex_case" where
  "mozcpp_kw_1016 eof la = (None,
      if la = CH_UNDERSCORE then ADVANCE 1096 else END_STATE)"

definition mozcpp_kw_1017 :: "bool \<Rightarrow> codepoint \<Rightarrow> lex_case" where
  "mozcpp_kw_1017 eof la = (None,
      if la = CH_R then ADVANCE 1097 else END_STATE)"

definition mozcpp_kw_1018 :: "bool \<Rightarrow> codepoint \<Rightarrow> lex_case" where
  "mozcpp_kw_1018 eof la = (None,
      if la = CH_U then ADVANCE 1098 else END_STATE)"

definition mozcpp_kw_1019 :: "bool \<Rightarrow> codepoint \<Rightarrow> lex_case" where
  "mozcpp_kw_1019 eof la = (Some mozcpp_anon_sym_MOZ_MUST_USE,
      if la = CH_UNDERSCORE then ADVANCE 1099 else END_STATE)"

definition mozcpp_kw_1020 :: "bool \<Rightarrow> codepoint \<Rightarrow> lex_case" where
  "mozcpp_kw_1020 eof la = (None,
      if la = CH_M then ADVANCE 1100 else END_STATE)"

definition mozcpp_kw_1021 :: "bool \<Rightarrow> codepoint \<Rightarrow> lex_case" where
  "mozcpp_kw_1021 eof la = (None,
      if la = CH_UNDERSCORE then ADVANCE 1101 else END_STATE)"

definition mozcpp_kw_1022 :: "bool \<Rightarrow> codepoint \<Rightarrow> lex_case" where
  "mozcpp_kw_1022 eof la = (None,
      if la = CH_L then ADVANCE 1102 else END_STATE)"

definition mozcpp_kw_1023 :: "bool \<Rightarrow> codepoint \<Rightarrow> lex_case" where
  "mozcpp_kw_1023 eof la = (None,
      if la = CH_C then ADVANCE 1103 else END_STATE)"

definition mozcpp_kw_1024 :: "bool \<Rightarrow> codepoint \<Rightarrow> lex_case" where
  "mozcpp_kw_1024 eof la = (None,
      if la = CH_R then ADVANCE 1104 else END_STATE)"

definition mozcpp_kw_1025 :: "bool \<Rightarrow> codepoint \<Rightarrow> lex_case" where
  "mozcpp_kw_1025 eof la = (None,
      if la = CH_A then ADVANCE 1105 else END_STATE)"

definition mozcpp_kw_1026 :: "bool \<Rightarrow> codepoint \<Rightarrow> lex_case" where
  "mozcpp_kw_1026 eof la = (None,
      if la = CH_O then ADVANCE 1106 else END_STATE)"

definition mozcpp_kw_1027 :: "bool \<Rightarrow> codepoint \<Rightarrow> lex_case" where
  "mozcpp_kw_1027 eof la = (None,
      if la = CH_N then ADVANCE 1107 else END_STATE)"

definition mozcpp_kw_1028 :: "bool \<Rightarrow> codepoint \<Rightarrow> lex_case" where
  "mozcpp_kw_1028 eof la = (None,
      if la = CH_M then ADVANCE 1108 else END_STATE)"

definition mozcpp_kw_1029 :: "bool \<Rightarrow> codepoint \<Rightarrow> lex_case" where
  "mozcpp_kw_1029 eof la = (None,
      if la = CH_O then ADVANCE 1109 else END_STATE)"

definition mozcpp_kw_1030 :: "bool \<Rightarrow> codepoint \<Rightarrow> lex_case" where
  "mozcpp_kw_1030 eof la = (Some mozcpp_anon_sym_MOZ_NORETURN,
      if la = CH_UNDERSCORE then ADVANCE 1110 else END_STATE)"

definition mozcpp_kw_1031 :: "bool \<Rightarrow> codepoint \<Rightarrow> lex_case" where
  "mozcpp_kw_1031 eof la = (None,
      if la = CH_F then ADVANCE 1111 else END_STATE)"

definition mozcpp_kw_1032 :: "bool \<Rightarrow> codepoint \<Rightarrow> lex_case" where
  "mozcpp_kw_1032 eof la = (None,
      if la = CH_M then ADVANCE 1112 else END_STATE)"

definition mozcpp_kw_1033 :: "bool \<Rightarrow> codepoint \<Rightarrow> lex_case" where
  "mozcpp_kw_1033 eof la = (None,
      if la = CH_I then ADVANCE 1113 else END_STATE)"

definition mozcpp_kw_1034 :: "bool \<Rightarrow> codepoint \<Rightarrow> lex_case" where
  "mozcpp_kw_1034 eof la = (None,
      if la = CH_I then ADVANCE 1114 else END_STATE)"

definition mozcpp_kw_1035 :: "bool \<Rightarrow> codepoint \<Rightarrow> lex_case" where
  "mozcpp_kw_1035 eof la = (None,
      if la = CH_D then ADVANCE 1115 else END_STATE)"

definition mozcpp_kw_1036 :: "bool \<Rightarrow> codepoint \<Rightarrow> lex_case" where
  "mozcpp_kw_1036 eof la = (None,
      if la = CH_E then ADVANCE 1116 else END_STATE)"

definition mozcpp_kw_1037 :: "bool \<Rightarrow> codepoint \<Rightarrow> lex_case" where
  "mozcpp_kw_1037 eof la = (None,
      if la = CH_B then ADVANCE 1117 else END_STATE)"

definition mozcpp_kw_1038 :: "bool \<Rightarrow> codepoint \<Rightarrow> lex_case" where
  "mozcpp_kw_1038 eof la = (None,
      if la = CH_N then ADVANCE 1118 else END_STATE)"

definition mozcpp_kw_1039 :: "bool \<Rightarrow> codepoint \<Rightarrow> lex_case" where
  "mozcpp_kw_1039 eof la = (None,
      if la = CH_A then ADVANCE 1119 else END_STATE)"

definition mozcpp_kw_1040 :: "bool \<Rightarrow> codepoint \<Rightarrow> lex_case" where
  "mozcpp_kw_1040 eof la = (None,
      if la = CH_UNDERSCORE then ADVANCE 1120 else END_STATE)"

definition mozcpp_kw_1041 :: "bool \<Rightarrow> codepoint \<Rightarrow> lex_case" where
  "mozcpp_kw_1041 eof la = (None,
      if la = CH_A then ADVANCE 1121 else END_STATE)"

definition mozcpp_kw_1042 :: "bool \<Rightarrow> codepoint \<Rightarrow> lex_case" where
  "mozcpp_kw_1042 eof la = (None,
      if la = CH_L then ADVANCE 1122 else END_STATE)"

definition mozcpp_kw_1043 :: "bool \<Rightarrow> codepoint \<Rightarrow> lex_case" where
  "mozcpp_kw_1043 eof la = (None,
      if la = CH_O then ADVANCE 1123 else END_STATE)"

definition mozcpp_kw_1044 :: "bool \<Rightarrow> codepoint \<Rightarrow> lex_case" where
  "mozcpp_kw_1044 eof la = (None,
      if la = CH_Y then ADVANCE 1124 else END_STATE)"

definition mozcpp_kw_1045 :: "bool \<Rightarrow> codepoint \<Rightarrow> lex_case" where
  "mozcpp_kw_1045 eof la = (None,
      if la = CH_C then ADVANCE 1125 else END_STATE)"

definition mozcpp_kw_1046 :: "bool \<Rightarrow> codepoint \<Rightarrow> lex_case" where
  "mozcpp_kw_1046 eof la = (None,
      if la = CH_C then ADVANCE 1126 else END_STATE)"

definition mozcpp_kw_1047 :: "bool \<Rightarrow> codepoint \<Rightarrow> lex_case" where
  "mozcpp_kw_1047 eof la = (None,
      if la = CH_E then ADVANCE 1127 else END_STATE)"

definition mozcpp_kw_1048 :: "bool \<Rightarrow> codepoint \<Rightarrow> lex_case" where
  "mozcpp_kw_1048 eof la = (None,
      if la = CH_I then ADVANCE 1128 else END_STATE)"

definition mozcpp_kw_1049 :: "bool \<Rightarrow> codepoint \<Rightarrow> lex_case" where
  "mozcpp_kw_1049 eof la = (None,
      if la = CH_E then ADVANCE 1129 else END_STATE)"

definition mozcpp_kw_1050 :: "bool \<Rightarrow> codepoint \<Rightarrow> lex_case" where
  "mozcpp_kw_1050 eof la = (None,
      if la = CH_E then ADVANCE 1130 else END_STATE)"

definition mozcpp_kw_1051 :: "bool \<Rightarrow> codepoint \<Rightarrow> lex_case" where
  "mozcpp_kw_1051 eof la = (None,
      if la = CH_T then ADVANCE 1131 else END_STATE)"

definition mozcpp_kw_1052 :: "bool \<Rightarrow> codepoint \<Rightarrow> lex_case" where
  "mozcpp_kw_1052 eof la = (None,
      if la = CH_C then ADVANCE 1132 else END_STATE)"

definition mozcpp_kw_1053 :: "bool \<Rightarrow> codepoint \<Rightarrow> lex_case" where
  "mozcpp_kw_1053 eof la = (None,
      if la = CH_P then ADVANCE 1133 else END_STATE)"

definition mozcpp_kw_1054 :: "bool \<Rightarrow> codepoint \<Rightarrow> lex_case" where
  "mozcpp_kw_1054 eof la = (None,
      if la = CH_T then ADVANCE 1134 else END_STATE)"

definition mozcpp_kw_1055 :: "bool \<Rightarrow> codepoint \<Rightarrow> lex_case" where
  "mozcpp_kw_1055 eof la = (None,
      if la = CH_E then ADVANCE 1135 else END_STATE)"

definition mozcpp_kw_1056 :: "bool \<Rightarrow> codepoint \<Rightarrow> lex_case" where
  "mozcpp_kw_1056 eof la = (None,
      if la = CH_A then ADVANCE 1136 else END_STATE)"

definition mozcpp_kw_1057 :: "bool \<Rightarrow> codepoint \<Rightarrow> lex_case" where
  "mozcpp_kw_1057 eof la = (None,
      if la = CH_UNDERSCORE then ADVANCE 1137 else END_STATE)"

definition mozcpp_kw_1058 :: "bool \<Rightarrow> codepoint \<Rightarrow> lex_case" where
  "mozcpp_kw_1058 eof la = (None,
      if la = CH_UNDERSCORE then ADVANCE 1138 else END_STATE)"

definition mozcpp_kw_1059 :: "bool \<Rightarrow> codepoint \<Rightarrow> lex_case" where
  "mozcpp_kw_1059 eof la = (None,
      if la = CH_e then ADVANCE 1139 else END_STATE)"

definition mozcpp_kw_1060 :: "bool \<Rightarrow> codepoint \<Rightarrow> lex_case" where
  "mozcpp_kw_1060 eof la = (Some mozcpp_anon_sym___restrict__u, END_STATE)"

definition mozcpp_kw_1061 :: "bool \<Rightarrow> codepoint \<Rightarrow> lex_case" where
  "mozcpp_kw_1061 eof la = (Some mozcpp_anon_sym___vectorcall, END_STATE)"

definition mozcpp_kw_1062 :: "bool \<Rightarrow> codepoint \<Rightarrow> lex_case" where
  "mozcpp_kw_1062 eof la = (Some mozcpp_anon_sym___volatile__u, END_STATE)"

definition mozcpp_kw_1063 :: "bool \<Rightarrow> codepoint \<Rightarrow> lex_case" where
  "mozcpp_kw_1063 eof la = (None,
      if la = CH_t then ADVANCE 1140 else END_STATE)"

definition mozcpp_kw_1064 :: "bool \<Rightarrow> codepoint \<Rightarrow> lex_case" where
  "mozcpp_kw_1064 eof la = (Some mozcpp_anon_sym_thread_local, END_STATE)"

definition mozcpp_kw_1065 :: "bool \<Rightarrow> codepoint \<Rightarrow> lex_case" where
  "mozcpp_kw_1065 eof la = (None,
      if la = CH_P then ADVANCE 1141 else END_STATE)"

definition mozcpp_kw_1066 :: "bool \<Rightarrow> codepoint \<Rightarrow> lex_case" where
  "mozcpp_kw_1066 eof la = (None,
      if la = CH_R then ADVANCE 1142 else END_STATE)"

definition mozcpp_kw_1067 :: "bool \<Rightarrow> codepoint \<Rightarrow> lex_case" where
  "mozcpp_kw_1067 eof la = (None,
      if la = CH_T then ADVANCE 1143 else END_STATE)"

definition mozcpp_kw_1068 :: "bool \<Rightarrow> codepoint \<Rightarrow> lex_case" where
  "mozcpp_kw_1068 eof la = (None,
      if la = CH_C then ADVANCE 1144 else END_STATE)"

definition mozcpp_kw_1069 :: "bool \<Rightarrow> codepoint \<Rightarrow> lex_case" where
  "mozcpp_kw_1069 eof la = (None,
      if la = CH_P then ADVANCE 1145 else END_STATE)"

definition mozcpp_kw_1070 :: "bool \<Rightarrow> codepoint \<Rightarrow> lex_case" where
  "mozcpp_kw_1070 eof la = (Some mozcpp_anon_sym_JS_PUBLIC_API, END_STATE)"

definition mozcpp_kw_1071 :: "bool \<Rightarrow> codepoint \<Rightarrow> lex_case" where
  "mozcpp_kw_1071 eof la = (None,
      if la = CH_T then ADVANCE 1146 else END_STATE)"

definition mozcpp_kw_1072 :: "bool \<Rightarrow> codepoint \<Rightarrow> lex_case" where
  "mozcpp_kw_1072 eof la = (Some mozcpp_anon_sym_LS_TRY_UNWRAP, END_STATE)"

definition mozcpp_kw_1073 :: "bool \<Rightarrow> codepoint \<Rightarrow> lex_case" where
  "mozcpp_kw_1073 eof la = (Some mozcpp_anon_sym_MOZ_ALLOCATOR, END_STATE)"

definition mozcpp_kw_1074 :: "bool \<Rightarrow> codepoint \<Rightarrow> lex_case" where
  "mozcpp_kw_1074 eof la = (None,
      if la = CH_P then ADVANCE 1147 else END_STATE)"

definition mozcpp_kw_1075 :: "bool \<Rightarrow> codepoint \<Rightarrow> lex_case" where
  "mozcpp_kw_1075 eof la = (None,
      if la = CH_L then ADVANCE 1148 else END_STATE)"

definition mozcpp_kw_1076 :: "bool \<Rightarrow> codepoint \<Rightarrow> lex_case" where
  "mozcpp_kw_1076 eof la = (None,
      if la = CH_K then ADVANCE 1149 else END_STATE)"

definition mozcpp_kw_1077 :: "bool \<Rightarrow> codepoint \<Rightarrow> lex_case" where
  "mozcpp_kw_1077 eof la = (None,
      if la = CH_C then ADVANCE 1150 else END_STATE)"

definition mozcpp_kw_1078 :: "bool \<Rightarrow> codepoint \<Rightarrow> lex_case" where
  "mozcpp_kw_1078 eof la = (None,
      if la = CH_G then ADVANCE 1151 else END_STATE)"

definition mozcpp_kw_1079 :: "bool \<Rightarrow> codepoint \<Rightarrow> lex_case" where
  "mozcpp_kw_1079 eof la = (None,
      if la = CH_G then ADVANCE 1152 else END_STATE)"

definition mozcpp_kw_1080 :: "bool \<Rightarrow> codepoint \<Rightarrow> lex_case" where
  "mozcpp_kw_1080 eof la = (None,
      if la = CH_I then ADVANCE 1153 else END_STATE)"

definition mozcpp_kw_1081 :: "bool \<Rightarrow> codepoint \<Rightarrow> lex_case" where
  "mozcpp_kw_1081 eof la = (None,
      if la = CH_Y then ADVANCE 1154 else END_STATE)"

definition mozcpp_kw_1082 :: "bool \<Rightarrow> codepoint \<Rightarrow> lex_case" where
  "mozcpp_kw_1082 eof la = (None,
      if la = CH_UNDERSCORE then ADVANCE 1155 else END_STATE)"

definition mozcpp_kw_1083 :: "bool \<Rightarrow> codepoint \<Rightarrow> lex_case" where
  "mozcpp_kw_1083 eof la = (None,
      if la = CH_R then ADVANCE 1156 else END_STATE)"

definition mozcpp_kw_1084 :: "bool \<Rightarrow> codepoint \<Rightarrow> lex_case" where
  "mozcpp_kw_1084 eof la = (None,
      if la = CH_T then ADVANCE 1157 else END_STATE)"

definition mozcpp_kw_1085 :: "bool \<Rightarrow> codepoint \<Rightarrow> lex_case" where
  "mozcpp_kw_1085 eof la = (None,
      if la = CH_A then ADVANCE 1158 else END_STATE)"

definition mozcpp_kw_1086 :: "bool \<Rightarrow> codepoint \<Rightarrow> lex_case" where
  "mozcpp_kw_1086 eof la = (None,
      if la = CH_E then ADVANCE 1159 else END_STATE)"

definition mozcpp_kw_1087 :: "bool \<Rightarrow> codepoint \<Rightarrow> lex_case" where
  "mozcpp_kw_1087 eof la = (None,
      if la = CH_G then ADVANCE 1160 else END_STATE)"

definition mozcpp_kw_1088 :: "bool \<Rightarrow> codepoint \<Rightarrow> lex_case" where
  "mozcpp_kw_1088 eof la = (None,
      if la = CH_C then ADVANCE 1161 else END_STATE)"

definition mozcpp_kw_1089 :: "bool \<Rightarrow> codepoint \<Rightarrow> lex_case" where
  "mozcpp_kw_1089 eof la = (None,
      if la = CH_S then ADVANCE 1162 else END_STATE)"

definition mozcpp_kw_1090 :: "bool \<Rightarrow> codepoint \<Rightarrow> lex_case" where
  "mozcpp_kw_1090 eof la = (None,
      if la = CH_Y then ADVANCE 1163 else END_STATE)"

definition mozcpp_kw_1091 :: "bool \<Rightarrow> codepoint \<Rightarrow> lex_case" where
  "mozcpp_kw_1091 eof la = (None,
      if la = CH_I then ADVANCE 1164 else END_STATE)"

definition mozcpp_kw_1092 :: "bool \<Rightarrow> codepoint \<Rightarrow> lex_case" where
  "mozcpp_kw_1092 eof la = (None,
      if la = CH_I then ADVANCE 1165 else END_STATE)"

definition mozcpp_kw_1093 :: "bool \<Rightarrow> codepoint \<Rightarrow> lex_case" where
  "mozcpp_kw_1093 eof la = (Some mozcpp_anon_sym_MOZ_IS_REFPTR, END_STATE)"

definition mozcpp_kw_1094 :: "bool \<Rightarrow> codepoint \<Rightarrow> lex_case" where
  "mozcpp_kw_1094 eof la = (None,
      if la = CH_T then ADVANCE 1166 else END_STATE)"

definition mozcpp_kw_1095 :: "bool \<Rightarrow> codepoint \<Rightarrow> lex_case" where
  "mozcpp_kw_1095 eof la = (None,
      if la = CH_S then ADVANCE 1167 else END_STATE)"

definition mozcpp_kw_1096 :: "bool \<Rightarrow> codepoint \<Rightarrow> lex_case" where
  "mozcpp_kw_1096 eof la = (None,
      if la = CH_A then ADVANCE 1168 else END_STATE)"

definition mozcpp_kw_1097 :: "bool \<Rightarrow> codepoint \<Rightarrow> lex_case" where
  "mozcpp_kw_1097 eof la = (None,
      if la = CH_R then ADVANCE 1169 else END_STATE)"

definition mozcpp_kw_1098 :: "bool \<Rightarrow> codepoint \<Rightarrow> lex_case" where
  "mozcpp_kw_1098 eof la = (None,
      if la = CH_R then ADVANCE 1170 else END_STATE)"

definition mozcpp_kw_1099 :: "bool \<Rightarrow> codepoint \<Rightarrow> lex_case" where
  "mozcpp_kw_1099 eof la = (None,
      if la = CH_T then ADVANCE 1171 else END_STATE)"

definition mozcpp_kw_1100 :: "bool \<Rightarrow> codepoint \<Rightarrow> lex_case" where
  "mozcpp_kw_1100 eof la = (None,
      if la = CH_M then ADVANCE 1172 else END_STATE)"

definition mozcpp_kw_1101 :: "bool \<Rightarrow> codepoint \<Rightarrow> lex_case" where
  "mozcpp_kw_1101 eof la = (None,
      if la = CH_V then ADVANCE 1173 else END_STATE)"

definition mozcpp_kw_1102 :: "bool \<Rightarrow> codepoint \<Rightarrow> lex_case" where
  "mozcpp_kw_1102 eof la = (None,
      if la = CH_I then ADVANCE 1174 else END_STATE)"

definition mozcpp_kw_1103 :: "bool \<Rightarrow> codepoint \<Rightarrow> lex_case" where
  "mozcpp_kw_1103 eof la = (None,
      if la = CH_L then ADVANCE 1175 else END_STATE)"

definition mozcpp_kw_1104 :: "bool \<Rightarrow> codepoint \<Rightarrow> lex_case" where
  "mozcpp_kw_1104 eof la = (None,
      if la = CH_E then ADVANCE 1176 else END_STATE)"

definition mozcpp_kw_1105 :: "bool \<Rightarrow> codepoint \<Rightarrow> lex_case" where
  "mozcpp_kw_1105 eof la = (None,
      if la = CH_B then ADVANCE 1177 else END_STATE)"

definition mozcpp_kw_1106 :: "bool \<Rightarrow> codepoint \<Rightarrow> lex_case" where
  "mozcpp_kw_1106 eof la = (None,
      if la = CH_V then ADVANCE 1178 else END_STATE)"

definition mozcpp_kw_1107 :: "bool \<Rightarrow> codepoint \<Rightarrow> lex_case" where
  "mozcpp_kw_1107 eof la = (None,
      if la = CH_G then ADVANCE 1179 else END_STATE)"

definition mozcpp_kw_1108 :: "bool \<Rightarrow> codepoint \<Rightarrow> lex_case" where
  "mozcpp_kw_1108 eof la = (Some mozcpp_anon_sym_MOZ_NON_PARAM, END_STATE)"

definition mozcpp_kw_1109 :: "bool \<Rightarrow> codepoint \<Rightarrow> lex_case" where
  "mozcpp_kw_1109 eof la = (None,
      if la = CH_R then ADVANCE 1180 else END_STATE)"

definition mozcpp_kw_1110 :: "bool \<Rightarrow> codepoint \<Rightarrow> lex_case" where
  "mozcpp_kw_1110 eof la = (None,
      if la = CH_P then ADVANCE 1181 else END_STATE)"

definition mozcpp_kw_1111 :: "bool \<Rightarrow> codepoint \<Rightarrow> lex_case" where
  "mozcpp_kw_1111 eof la = (None,
      if la = CH_UNDERSCORE then ADVANCE 1182 else END_STATE)"

definition mozcpp_kw_1112 :: "bool \<Rightarrow> codepoint \<Rightarrow> lex_case" where
  "mozcpp_kw_1112 eof la = (None,
      if la = CH_E then ADVANCE 1183 else END_STATE)"

definition mozcpp_kw_1113 :: "bool \<Rightarrow> codepoint \<Rightarrow> lex_case" where
  "mozcpp_kw_1113 eof la = (None,
      if la = CH_N then ADVANCE 1184 else END_STATE)"

definition mozcpp_kw_1114 :: "bool \<Rightarrow> codepoint \<Rightarrow> lex_case" where
  "mozcpp_kw_1114 eof la = (None,
      if la = CH_Z then ADVANCE 1185 else END_STATE)"

definition mozcpp_kw_1115 :: "bool \<Rightarrow> codepoint \<Rightarrow> lex_case" where
  "mozcpp_kw_1115 eof la = (None,
      if la = CH_UNDERSCORE then ADVANCE 1186 else END_STATE)"

definition mozcpp_kw_1116 :: "bool \<Rightarrow> codepoint \<Rightarrow> lex_case" where
  "mozcpp_kw_1116 eof la = (None,
      if la = CH_F then ADVANCE 1187 else END_STATE)"

definition mozcpp_kw_1117 :: "bool \<Rightarrow> codepoint \<Rightarrow> lex_case" where
  "mozcpp_kw_1117 eof la = (None,
      if la = CH_L then ADVANCE 1188 else END_STATE)"

definition mozcpp_kw_1118 :: "bool \<Rightarrow> codepoint \<Rightarrow> lex_case" where
  "mozcpp_kw_1118 eof la = (None,
      if la = CH_O then ADVANCE 1189 else END_STATE)"

definition mozcpp_kw_1119 :: "bool \<Rightarrow> codepoint \<Rightarrow> lex_case" where
  "mozcpp_kw_1119 eof la = (None,
      if la = CH_B then ADVANCE 1190 else END_STATE)"

definition mozcpp_kw_1120 :: "bool \<Rightarrow> codepoint \<Rightarrow> lex_case" where
  "mozcpp_kw_1120 eof la = (None,
      if la = CH_B then ADVANCE 1191 else END_STATE)"

definition mozcpp_kw_1121 :: "bool \<Rightarrow> codepoint \<Rightarrow> lex_case" where
  "mozcpp_kw_1121 eof la = (None,
      if la = CH_S then ADVANCE 1192 else END_STATE)"

definition mozcpp_kw_1122 :: "bool \<Rightarrow> codepoint \<Rightarrow> lex_case" where
  "mozcpp_kw_1122 eof la = (None,
      if la = CH_A then ADVANCE 1193 else END_STATE)"

definition mozcpp_kw_1123 :: "bool \<Rightarrow> codepoint \<Rightarrow> lex_case" where
  "mozcpp_kw_1123 eof la = (None,
      if la = CH_C then ADVANCE 1194 else END_STATE)"

definition mozcpp_kw_1124 :: "bool \<Rightarrow> codepoint \<Rightarrow> lex_case" where
  "mozcpp_kw_1124 eof la = (None,
      if la = CH_UNDERSCORE then ADVANCE 1195 else END_STATE)"

definition mozcpp_kw_1125 :: "bool \<Rightarrow> codepoint \<Rightarrow> lex_case" where
  "mozcpp_kw_1125 eof la = (None,
      if la = CH_T then ADVANCE 1196 else END_STATE)"

definition mozcpp_kw_1126 :: "bool \<Rightarrow> codepoint \<Rightarrow> lex_case" where
  "mozcpp_kw_1126 eof la = (None,
      if la = CH_K then ADVANCE 1197 else END_STATE)"

definition mozcpp_kw_1127 :: "bool \<Rightarrow> codepoint \<Rightarrow> lex_case" where
  "mozcpp_kw_1127 eof la = (None,
      if la = CH_F then ADVANCE 1198 else END_STATE)"

definition mozcpp_kw_1128 :: "bool \<Rightarrow> codepoint \<Rightarrow> lex_case" where
  "mozcpp_kw_1128 eof la = (Some mozcpp_anon_sym_MOZ_XPCOM_ABI, END_STATE)"

definition mozcpp_kw_1129 :: "bool \<Rightarrow> codepoint \<Rightarrow> lex_case" where
  "mozcpp_kw_1129 eof la = (None,
      if la = CH_T then ADVANCE 1199 else END_STATE)"

definition mozcpp_kw_1130 :: "bool \<Rightarrow> codepoint \<Rightarrow> lex_case" where
  "mozcpp_kw_1130 eof la = (None,
      if la = CH_S then ADVANCE 1200 else END_STATE)"

definition mozcpp_kw_1131 :: "bool \<Rightarrow> codepoint \<Rightarrow> lex_case" where
  "mozcpp_kw_1131 eof la = (None,
      if la = CH_R then ADVANCE 1201 else END_STATE)"

definition mozcpp_kw_1132 :: "bool \<Rightarrow> codepoint \<Rightarrow> lex_case" where
  "mozcpp_kw_1132 eof la = (None,
      if la = CH_T then ADVANCE 1202 else END_STATE)"

definition mozcpp_kw_1133 :: "bool \<Rightarrow> codepoint \<Rightarrow> lex_case" where
  "mozcpp_kw_1133 eof la = (Some mozcpp_anon_sym_QM_TRY_UNWRAP, END_STATE)"

definition mozcpp_kw_1134 :: "bool \<Rightarrow> codepoint \<Rightarrow> lex_case" where
  "mozcpp_kw_1134 eof la = (None,
      if la = CH_R then ADVANCE 1203 else END_STATE)"

definition mozcpp_kw_1135 :: "bool \<Rightarrow> codepoint \<Rightarrow> lex_case" where
  "mozcpp_kw_1135 eof la = (None,
      if la = CH_C then ADVANCE 1204 else END_STATE)"

definition mozcpp_kw_1136 :: "bool \<Rightarrow> codepoint \<Rightarrow> lex_case" where
  "mozcpp_kw_1136 eof la = (None,
      if la = CH_P then ADVANCE 1205 else END_STATE)"

definition mozcpp_kw_1137 :: "bool \<Rightarrow> codepoint \<Rightarrow> lex_case" where
  "mozcpp_kw_1137 eof la = (Some mozcpp_anon_sym___attribute__u, END_STATE)"

definition mozcpp_kw_1138 :: "bool \<Rightarrow> codepoint \<Rightarrow> lex_case" where
  "mozcpp_kw_1138 eof la = (Some mozcpp_anon_sym___extension__u, END_STATE)"

definition mozcpp_kw_1139 :: "bool \<Rightarrow> codepoint \<Rightarrow> lex_case" where
  "mozcpp_kw_1139 eof la = (Some mozcpp_anon_sym___forceinline, END_STATE)"

definition mozcpp_kw_1140 :: "bool \<Rightarrow> codepoint \<Rightarrow> lex_case" where
  "mozcpp_kw_1140 eof la = (Some mozcpp_anon_sym_static_assert, END_STATE)"

definition mozcpp_kw_1141 :: "bool \<Rightarrow> codepoint \<Rightarrow> lex_case" where
  "mozcpp_kw_1141 eof la = (None,
      if la = CH_E then ADVANCE 1206 else END_STATE)"

definition mozcpp_kw_1142 :: "bool \<Rightarrow> codepoint \<Rightarrow> lex_case" where
  "mozcpp_kw_1142 eof la = (None,
      if la = CH_A then ADVANCE 1207 else END_STATE)"

definition mozcpp_kw_1143 :: "bool \<Rightarrow> codepoint \<Rightarrow> lex_case" where
  "mozcpp_kw_1143 eof la = (None,
      if la = CH_T then ADVANCE 1208 else END_STATE)"

definition mozcpp_kw_1144 :: "bool \<Rightarrow> codepoint \<Rightarrow> lex_case" where
  "mozcpp_kw_1144 eof la = (None,
      if la = CH_T then ADVANCE 1209 else END_STATE)"

definition mozcpp_kw_1145 :: "bool \<Rightarrow> codepoint \<Rightarrow> lex_case" where
  "mozcpp_kw_1145 eof la = (Some mozcpp_anon_sym_IDB_TRY_UNWRAP, END_STATE)"

definition mozcpp_kw_1146 :: "bool \<Rightarrow> codepoint \<Rightarrow> lex_case" where
  "mozcpp_kw_1146 eof la = (Some mozcpp_anon_sym_LS_TRY_INSPECT, END_STATE)"

definition mozcpp_kw_1147 :: "bool \<Rightarrow> codepoint \<Rightarrow> lex_case" where
  "mozcpp_kw_1147 eof la = (None,
      if la = CH_O then ADVANCE 1210 else END_STATE)"

definition mozcpp_kw_1148 :: "bool \<Rightarrow> codepoint \<Rightarrow> lex_case" where
  "mozcpp_kw_1148 eof la = (None,
      if la = CH_I then ADVANCE 1211 else END_STATE)"

definition mozcpp_kw_1149 :: "bool \<Rightarrow> codepoint \<Rightarrow> lex_case" where
  "mozcpp_kw_1149 eof la = (None,
      if la = CH_L then ADVANCE 1212 else END_STATE)"

definition mozcpp_kw_1150 :: "bool \<Rightarrow> codepoint \<Rightarrow> lex_case" where
  "mozcpp_kw_1150 eof la = (None,
      if la = CH_R then ADVANCE 1213 else END_STATE)"

definition mozcpp_kw_1151 :: "bool \<Rightarrow> codepoint \<Rightarrow> lex_case" where
  "mozcpp_kw_1151 eof la = (None,
      if la = CH_U then ADVANCE 1214 else END_STATE)"

definition mozcpp_kw_1152 :: "bool \<Rightarrow> codepoint \<Rightarrow> lex_case" where
  "mozcpp_kw_1152 eof la = (None,
      if la = CH_H then ADVANCE 1215 else END_STATE)"

definition mozcpp_kw_1153 :: "bool \<Rightarrow> codepoint \<Rightarrow> lex_case" where
  "mozcpp_kw_1153 eof la = (None,
      if la = CH_N then ADVANCE 1216 else END_STATE)"

definition mozcpp_kw_1154 :: "bool \<Rightarrow> codepoint \<Rightarrow> lex_case" where
  "mozcpp_kw_1154 eof la = (None,
      if la = CH_Z then ADVANCE 1217 else END_STATE)"

definition mozcpp_kw_1155 :: "bool \<Rightarrow> codepoint \<Rightarrow> lex_case" where
  "mozcpp_kw_1155 eof la = (None,
      if la = CH_B then ADVANCE 1218 else END_STATE)"

definition mozcpp_kw_1156 :: "bool \<Rightarrow> codepoint \<Rightarrow> lex_case" where
  "mozcpp_kw_1156 eof la = (None,
      if la = CH_UNDERSCORE then ADVANCE 1219 else END_STATE)"

definition mozcpp_kw_1157 :: "bool \<Rightarrow> codepoint \<Rightarrow> lex_case" where
  "mozcpp_kw_1157 eof la = (None,
      if la = CH_U then ADVANCE 1220 else END_STATE)"

definition mozcpp_kw_1158 :: "bool \<Rightarrow> codepoint \<Rightarrow> lex_case" where
  "mozcpp_kw_1158 eof la = (None,
      if la = CH_N then ADVANCE 1221 else END_STATE)"

definition mozcpp_kw_1159 :: "bool \<Rightarrow> codepoint \<Rightarrow> lex_case" where
  "mozcpp_kw_1159 eof la = (None,
      if la = CH_D then ADVANCE 1222 else END_STATE)"

definition mozcpp_kw_1160 :: "bool \<Rightarrow> codepoint \<Rightarrow> lex_case" where
  "mozcpp_kw_1160 eof la = (None,
      if la = CH_N then ADVANCE 1223 else END_STATE)"

definition mozcpp_kw_1161 :: "bool \<Rightarrow> codepoint \<Rightarrow> lex_case" where
  "mozcpp_kw_1161 eof la = (None,
      if la = CH_A then ADVANCE 1224 else END_STATE)"

definition mozcpp_kw_1162 :: "bool \<Rightarrow> codepoint \<Rightarrow> lex_case" where
  "mozcpp_kw_1162 eof la = (Some mozcpp_anon_sym_MOZ_HEAP_CLASS, END_STATE)"

definition mozcpp_kw_1163 :: "bool \<Rightarrow> codepoint \<Rightarrow> lex_case" where
  "mozcpp_kw_1163 eof la = (None,
      if la = CH_P then ADVANCE 1225 else END_STATE)"

definition mozcpp_kw_1164 :: "bool \<Rightarrow> codepoint \<Rightarrow> lex_case" where
  "mozcpp_kw_1164 eof la = (None,
      if la = CH_D then ADVANCE 1226 else END_STATE)"

definition mozcpp_kw_1165 :: "bool \<Rightarrow> codepoint \<Rightarrow> lex_case" where
  "mozcpp_kw_1165 eof la = (None,
      if la = CH_N then ADVANCE 1227 else END_STATE)"

definition mozcpp_kw_1166 :: "bool \<Rightarrow> codepoint \<Rightarrow> lex_case" where
  "mozcpp_kw_1166 eof la = (None,
      if la = CH_R then ADVANCE 1228 else END_STATE)"

definition mozcpp_kw_1167 :: "bool \<Rightarrow> codepoint \<Rightarrow> lex_case" where
  "mozcpp_kw_1167 eof la = (None,
      if la = CH_E then ADVANCE 1229 else END_STATE)"

definition mozcpp_kw_1168 :: "bool \<Rightarrow> codepoint \<Rightarrow> lex_case" where
  "mozcpp_kw_1168 eof la = (None,
      if la = CH_F then ADVANCE 1230 else END_STATE)"

definition mozcpp_kw_1169 :: "bool \<Rightarrow> codepoint \<Rightarrow> lex_case" where
  "mozcpp_kw_1169 eof la = (None,
      if la = CH_I then ADVANCE 1231 else END_STATE)"

definition mozcpp_kw_1170 :: "bool \<Rightarrow> codepoint \<Rightarrow> lex_case" where
  "mozcpp_kw_1170 eof la = (None,
      if la = CH_N then ADVANCE 1232 else END_STATE)"

definition mozcpp_kw_1171 :: "bool \<Rightarrow> codepoint \<Rightarrow> lex_case" where
  "mozcpp_kw_1171 eof la = (None,
      if la = CH_Y then ADVANCE 1233 else END_STATE)"

definition mozcpp_kw_1172 :: "bool \<Rightarrow> codepoint \<Rightarrow> lex_case" where
  "mozcpp_kw_1172 eof la = (None,
      if la = CH_O then ADVANCE 1234 else END_STATE)"

definition mozcpp_kw_1173 :: "bool \<Rightarrow> codepoint \<Rightarrow> lex_case" where
  "mozcpp_kw_1173 eof la = (None,
      if la = CH_T then ADVANCE 1235 else END_STATE)"

definition mozcpp_kw_1174 :: "bool \<Rightarrow> codepoint \<Rightarrow> lex_case" where
  "mozcpp_kw_1174 eof la = (None,
      if la = CH_N then ADVANCE 1236 else END_STATE)"

definition mozcpp_kw_1175 :: "bool \<Rightarrow> codepoint \<Rightarrow> lex_case" where
  "mozcpp_kw_1175 eof la = (None,
      if la = CH_A then ADVANCE 1237 else END_STATE)"

definition mozcpp_kw_1176 :: "bool \<Rightarrow> codepoint \<Rightarrow> lex_case" where
  "mozcpp_kw_1176 eof la = (None,
      if la = CH_T then ADVANCE 1238 else END_STATE)"

definition mozcpp_kw_1177 :: "bool \<Rightarrow> codepoint \<Rightarrow> lex_case" where
  "mozcpp_kw_1177 eof la = (None,
      if la = CH_L then ADVANCE 1239 else END_STATE)"

definition mozcpp_kw_1178 :: "bool \<Rightarrow> codepoint \<Rightarrow> lex_case" where
  "mozcpp_kw_1178 eof la = (None,
      if la = CH_A then ADVANCE 1240 else END_STATE)"

definition mozcpp_kw_1179 :: "bool \<Rightarrow> codepoint \<Rightarrow> lex_case" where
  "mozcpp_kw_1179 eof la = (None,
      if la = CH_UNDERSCORE then ADVANCE 1241 else END_STATE)"

definition mozcpp_kw_1180 :: "bool \<Rightarrow> codepoint \<Rightarrow> lex_case" where
  "mozcpp_kw_1180 eof la = (None,
      if la = CH_A then ADVANCE 1242 else END_STATE)"

definition mozcpp_kw_1181 :: "bool \<Rightarrow> codepoint \<Rightarrow> lex_case" where
  "mozcpp_kw_1181 eof la = (None,
      if la = CH_T then ADVANCE 1243 else END_STATE)"

definition mozcpp_kw_1182 :: "bool \<Rightarrow> codepoint \<Rightarrow> lex_case" where
  "mozcpp_kw_1182 eof la = (None,
      if la = CH_R then ADVANCE 1244 else END_STATE)"

definition mozcpp_kw_1183 :: "bool \<Rightarrow> codepoint \<Rightarrow> lex_case" where
  "mozcpp_kw_1183 eof la = (None,
      if la = CH_T then ADVANCE 1245 else END_STATE)"

definition mozcpp_kw_1184 :: "bool \<Rightarrow> codepoint \<Rightarrow> lex_case" where
  "mozcpp_kw_1184 eof la = (None,
      if la = CH_G then ADVANCE 1246 else END_STATE)"

definition mozcpp_kw_1185 :: "bool \<Rightarrow> codepoint \<Rightarrow> lex_case" where
  "mozcpp_kw_1185 eof la = (None,
      if la = CH_E then ADVANCE 1247 else END_STATE)"

definition mozcpp_kw_1186 :: "bool \<Rightarrow> codepoint \<Rightarrow> lex_case" where
  "mozcpp_kw_1186 eof la = (None,
      if la = CH_T then ADVANCE 1248 else END_STATE)"

definition mozcpp_kw_1187 :: "bool \<Rightarrow> codepoint \<Rightarrow> lex_case" where
  "mozcpp_kw_1187 eof la = (Some mozcpp_anon_sym_MOZ_OWNING_REF, END_STATE)"

definition mozcpp_kw_1188 :: "bool \<Rightarrow> codepoint \<Rightarrow> lex_case" where
  "mozcpp_kw_1188 eof la = (None,
      if la = CH_E then ADVANCE 1249 else END_STATE)"

definition mozcpp_kw_1189 :: "bool \<Rightarrow> codepoint \<Rightarrow> lex_case" where
  "mozcpp_kw_1189 eof la = (None,
      if la = CH_R then ADVANCE 1250 else END_STATE)"

definition mozcpp_kw_1190 :: "bool \<Rightarrow> codepoint \<Rightarrow> lex_case" where
  "mozcpp_kw_1190 eof la = (None,
      if la = CH_L then ADVANCE 1251 else END_STATE)"

definition mozcpp_kw_1191 :: "bool \<Rightarrow> codepoint \<Rightarrow> lex_case" where
  "mozcpp_kw_1191 eof la = (None,
      if la = CH_A then ADVANCE 1252 else END_STATE)"

definition mozcpp_kw_1192 :: "bool \<Rightarrow> codepoint \<Rightarrow> lex_case" where
  "mozcpp_kw_1192 eof la = (None,
      if la = CH_S then ADVANCE 1253 else END_STATE)"

definition mozcpp_kw_1193 :: "bool \<Rightarrow> codepoint \<Rightarrow> lex_case" where
  "mozcpp_kw_1193 eof la = (None,
      if la = CH_S then ADVANCE 1254 else END_STATE)"

definition mozcpp_kw_1194 :: "bool \<Rightarrow> codepoint \<Rightarrow> lex_case" where
  "mozcpp_kw_1194 eof la = (None,
      if la = CH_A then ADVANCE 1255 else END_STATE)"

definition mozcpp_kw_1195 :: "bool \<Rightarrow> codepoint \<Rightarrow> lex_case" where
  "mozcpp_kw_1195 eof la = (None,
      if la = CH_C then ADVANCE 1256 else END_STATE)"

definition mozcpp_kw_1196 :: "bool \<Rightarrow> codepoint \<Rightarrow> lex_case" where
  "mozcpp_kw_1196 eof la = (None,
      if la = CH_O then ADVANCE 1257 else END_STATE)"

definition mozcpp_kw_1197 :: "bool \<Rightarrow> codepoint \<Rightarrow> lex_case" where
  "mozcpp_kw_1197 eof la = (None,
      if la = CH_L then ADVANCE 1258 else END_STATE)"

definition mozcpp_kw_1198 :: "bool \<Rightarrow> codepoint \<Rightarrow> lex_case" where
  "mozcpp_kw_1198 eof la = (Some mozcpp_anon_sym_MOZ_UNSAFE_REF, END_STATE)"

definition mozcpp_kw_1199 :: "bool \<Rightarrow> codepoint \<Rightarrow> lex_case" where
  "mozcpp_kw_1199 eof la = (Some mozcpp_anon_sym_PS_GET_AND_SET, END_STATE)"

definition mozcpp_kw_1200 :: "bool \<Rightarrow> codepoint \<Rightarrow> lex_case" where
  "mozcpp_kw_1200 eof la = (None,
      if la = CH_S then ADVANCE 1259 else END_STATE)"

definition mozcpp_kw_1201 :: "bool \<Rightarrow> codepoint \<Rightarrow> lex_case" where
  "mozcpp_kw_1201 eof la = (None,
      if la = CH_Y then ADVANCE 1260 else END_STATE)"

definition mozcpp_kw_1202 :: "bool \<Rightarrow> codepoint \<Rightarrow> lex_case" where
  "mozcpp_kw_1202 eof la = (Some mozcpp_anon_sym_QM_TRY_INSPECT, END_STATE)"

definition mozcpp_kw_1203 :: "bool \<Rightarrow> codepoint \<Rightarrow> lex_case" where
  "mozcpp_kw_1203 eof la = (None,
      if la = CH_Y then ADVANCE 1261 else END_STATE)"

definition mozcpp_kw_1204 :: "bool \<Rightarrow> codepoint \<Rightarrow> lex_case" where
  "mozcpp_kw_1204 eof la = (None,
      if la = CH_T then ADVANCE 1262 else END_STATE)"

definition mozcpp_kw_1205 :: "bool \<Rightarrow> codepoint \<Rightarrow> lex_case" where
  "mozcpp_kw_1205 eof la = (Some mozcpp_anon_sym_SDB_TRY_UNWRAP, END_STATE)"

definition mozcpp_kw_1206 :: "bool \<Rightarrow> codepoint \<Rightarrow> lex_case" where
  "mozcpp_kw_1206 eof la = (None,
      if la = CH_C then ADVANCE 1263 else END_STATE)"

definition mozcpp_kw_1207 :: "bool \<Rightarrow> codepoint \<Rightarrow> lex_case" where
  "mozcpp_kw_1207 eof la = (None,
      if la = CH_P then ADVANCE 1264 else END_STATE)"

definition mozcpp_kw_1208 :: "bool \<Rightarrow> codepoint \<Rightarrow> lex_case" where
  "mozcpp_kw_1208 eof la = (None,
      if la = CH_R then ADVANCE 1265 else END_STATE)"

definition mozcpp_kw_1209 :: "bool \<Rightarrow> codepoint \<Rightarrow> lex_case" where
  "mozcpp_kw_1209 eof la = (Some mozcpp_anon_sym_IDB_TRY_INSPECT, END_STATE)"

definition mozcpp_kw_1210 :: "bool \<Rightarrow> codepoint \<Rightarrow> lex_case" where
  "mozcpp_kw_1210 eof la = (None,
      if la = CH_R then ADVANCE 1266 else END_STATE)"

definition mozcpp_kw_1211 :: "bool \<Rightarrow> codepoint \<Rightarrow> lex_case" where
  "mozcpp_kw_1211 eof la = (None,
      if la = CH_N then ADVANCE 1267 else END_STATE)"

definition mozcpp_kw_1212 :: "bool \<Rightarrow> codepoint \<Rightarrow> lex_case" where
  "mozcpp_kw_1212 eof la = (None,
      if la = CH_I then ADVANCE 1268 else END_STATE)"

definition mozcpp_kw_1213 :: "bool \<Rightarrow> codepoint \<Rightarrow> lex_case" where
  "mozcpp_kw_1213 eof la = (None,
      if la = CH_I then ADVANCE 1269 else END_STATE)"

definition mozcpp_kw_1214 :: "bool \<Rightarrow> codepoint \<Rightarrow> lex_case" where
  "mozcpp_kw_1214 eof la = (None,
      if la = CH_A then ADVANCE 1270 else END_STATE)"

definition mozcpp_kw_1215 :: "bool \<Rightarrow> codepoint \<Rightarrow> lex_case" where
  "mozcpp_kw_1215 eof la = (Some mozcpp_anon_sym_MOZ_FALLTHROUGH, END_STATE)"

definition mozcpp_kw_1216 :: "bool \<Rightarrow> codepoint \<Rightarrow> lex_case" where
  "mozcpp_kw_1216 eof la = (None,
      if la = CH_T then ADVANCE 1271 else END_STATE)"

definition mozcpp_kw_1217 :: "bool \<Rightarrow> codepoint \<Rightarrow> lex_case" where
  "mozcpp_kw_1217 eof la = (None,
      if la = CH_E then ADVANCE 1272 else END_STATE)"

definition mozcpp_kw_1218 :: "bool \<Rightarrow> codepoint \<Rightarrow> lex_case" where
  "mozcpp_kw_1218 eof la = (None,
      if la = CH_L then ADVANCE 1273 else END_STATE)"

definition mozcpp_kw_1219 :: "bool \<Rightarrow> codepoint \<Rightarrow> lex_case" where
  "mozcpp_kw_1219 eof la = (None,
      if la = CH_I then ADVANCE 1274 else END_STATE)"

definition mozcpp_kw_1220 :: "bool \<Rightarrow> codepoint \<Rightarrow> lex_case" where
  "mozcpp_kw_1220 eof la = (None,
      if la = CH_R then ADVANCE 1275 else END_STATE)"

definition mozcpp_kw_1221 :: "bool \<Rightarrow> codepoint \<Rightarrow> lex_case" where
  "mozcpp_kw_1221 eof la = (None,
      if la = CH_I then ADVANCE 1276 else END_STATE)"

definition mozcpp_kw_1222 :: "bool \<Rightarrow> codepoint \<Rightarrow> lex_case" where
  "mozcpp_kw_1222 eof la = (None,
      if la = CH_UNDERSCORE then ADVANCE 1277 else END_STATE)"

definition mozcpp_kw_1223 :: "bool \<Rightarrow> codepoint \<Rightarrow> lex_case" where
  "mozcpp_kw_1223 eof la = (None,
      if la = CH_E then ADVANCE 1278 else END_STATE)"

definition mozcpp_kw_1224 :: "bool \<Rightarrow> codepoint \<Rightarrow> lex_case" where
  "mozcpp_kw_1224 eof la = (None,
      if la = CH_T then ADVANCE 1279 else END_STATE)"

definition mozcpp_kw_1225 :: "bool \<Rightarrow> codepoint \<Rightarrow> lex_case" where
  "mozcpp_kw_1225 eof la = (None,
      if la = CH_E then ADVANCE 1280 else END_STATE)"

definition mozcpp_kw_1226 :: "bool \<Rightarrow> codepoint \<Rightarrow> lex_case" where
  "mozcpp_kw_1226 eof la = (None,
      if la = CH_E then ADVANCE 1281 else END_STATE)"

definition mozcpp_kw_1227 :: "bool \<Rightarrow> codepoint \<Rightarrow> lex_case" where
  "mozcpp_kw_1227 eof la = (None,
      if la = CH_I then ADVANCE 1282 else END_STATE)"

definition mozcpp_kw_1228 :: "bool \<Rightarrow> codepoint \<Rightarrow> lex_case" where
  "mozcpp_kw_1228 eof la = (None,
      if la = CH_UNDERSCORE then ADVANCE 1283 else END_STATE)"

definition mozcpp_kw_1229 :: "bool \<Rightarrow> codepoint \<Rightarrow> lex_case" where
  "mozcpp_kw_1229 eof la = (None,
      if la = CH_D then ADVANCE 1284 else END_STATE)"

definition mozcpp_kw_1230 :: "bool \<Rightarrow> codepoint \<Rightarrow> lex_case" where
  "mozcpp_kw_1230 eof la = (None,
      if la = CH_T then ADVANCE 1285 else END_STATE)"

definition mozcpp_kw_1231 :: "bool \<Rightarrow> codepoint \<Rightarrow> lex_case" where
  "mozcpp_kw_1231 eof la = (None,
      if la = CH_D then ADVANCE 1286 else END_STATE)"

definition mozcpp_kw_1232 :: "bool \<Rightarrow> codepoint \<Rightarrow> lex_case" where
  "mozcpp_kw_1232 eof la = (None,
      if la = CH_UNDERSCORE then ADVANCE 1287 else END_STATE)"

definition mozcpp_kw_1233 :: "bool \<Rightarrow> codepoint \<Rightarrow> lex_case" where
  "mozcpp_kw_1233 eof la = (None,
      if la = CH_P then ADVANCE 1288 else END_STATE)"

definition mozcpp_kw_1234 :: "bool \<Rightarrow> codepoint \<Rightarrow> lex_case" where
  "mozcpp_kw_1234 eof la = (None,
      if la = CH_V then ADVANCE 1289 else END_STATE)"

definition mozcpp_kw_1235 :: "bool \<Rightarrow> codepoint \<Rightarrow> lex_case" where
  "mozcpp_kw_1235 eof la = (None,
      if la = CH_A then ADVANCE 1290 else END_STATE)"

definition mozcpp_kw_1236 :: "bool \<Rightarrow> codepoint \<Rightarrow> lex_case" where
  "mozcpp_kw_1236 eof la = (None,
      if la = CH_E then ADVANCE 1291 else END_STATE)"

definition mozcpp_kw_1237 :: "bool \<Rightarrow> codepoint \<Rightarrow> lex_case" where
  "mozcpp_kw_1237 eof la = (None,
      if la = CH_S then ADVANCE 1292 else END_STATE)"

definition mozcpp_kw_1238 :: "bool \<Rightarrow> codepoint \<Rightarrow> lex_case" where
  "mozcpp_kw_1238 eof la = (None,
      if la = CH_U then ADVANCE 1293 else END_STATE)"

definition mozcpp_kw_1239 :: "bool \<Rightarrow> codepoint \<Rightarrow> lex_case" where
  "mozcpp_kw_1239 eof la = (None,
      if la = CH_E then ADVANCE 1294 else END_STATE)"

definition mozcpp_kw_1240 :: "bool \<Rightarrow> codepoint \<Rightarrow> lex_case" where
  "mozcpp_kw_1240 eof la = (None,
      if la = CH_B then ADVANCE 1295 else END_STATE)"

definition mozcpp_kw_1241 :: "bool \<Rightarrow> codepoint \<Rightarrow> lex_case" where
  "mozcpp_kw_1241 eof la = (None,
      if la = CH_R then ADVANCE 1296 else END_STATE)"

definition mozcpp_kw_1242 :: "bool \<Rightarrow> codepoint \<Rightarrow> lex_case" where
  "mozcpp_kw_1242 eof la = (None,
      if la = CH_R then ADVANCE 1297 else END_STATE)"

definition mozcpp_kw_1243 :: "bool \<Rightarrow> codepoint \<Rightarrow> lex_case" where
  "mozcpp_kw_1243 eof la = (None,
      if la = CH_R then ADVANCE 1298 else END_STATE)"

definition mozcpp_kw_1244 :: "bool \<Rightarrow> codepoint \<Rightarrow> lex_case" where
  "mozcpp_kw_1244 eof la = (None,
      if la = CH_E then ADVANCE 1299 else END_STATE)"

definition mozcpp_kw_1245 :: "bool \<Rightarrow> codepoint \<Rightarrow> lex_case" where
  "mozcpp_kw_1245 eof la = (None,
      if la = CH_I then ADVANCE 1300 else END_STATE)"

definition mozcpp_kw_1246 :: "bool \<Rightarrow> codepoint \<Rightarrow> lex_case" where
  "mozcpp_kw_1246 eof la = (None,
      if la = CH_UNDERSCORE then ADVANCE 1301 else END_STATE)"

definition mozcpp_kw_1247 :: "bool \<Rightarrow> codepoint \<Rightarrow> lex_case" where
  "mozcpp_kw_1247 eof la = (None,
      if la = CH_UNDERSCORE then ADVANCE 1302 else END_STATE)"

definition mozcpp_kw_1248 :: "bool \<Rightarrow> codepoint \<Rightarrow> lex_case" where
  "mozcpp_kw_1248 eof la = (None,
      if la = CH_O then ADVANCE 1303 else END_STATE)"

definition mozcpp_kw_1249 :: "bool \<Rightarrow> codepoint \<Rightarrow> lex_case" where
  "mozcpp_kw_1249 eof la = (None,
      if la = CH_UNDERSCORE then ADVANCE 1304 else END_STATE)"

definition mozcpp_kw_1250 :: "bool \<Rightarrow> codepoint \<Rightarrow> lex_case" where
  "mozcpp_kw_1250 eof la = (None,
      if la = CH_E then ADVANCE 1305 else END_STATE)"

definition mozcpp_kw_1251 :: "bool \<Rightarrow> codepoint \<Rightarrow> lex_case" where
  "mozcpp_kw_1251 eof la = (None,
      if la = CH_E then ADVANCE 1306 else END_STATE)"

definition mozcpp_kw_1252 :: "bool \<Rightarrow> codepoint \<Rightarrow> lex_case" where
  "mozcpp_kw_1252 eof la = (None,
      if la = CH_S then ADVANCE 1307 else END_STATE)"

definition mozcpp_kw_1253 :: "bool \<Rightarrow> codepoint \<Rightarrow> lex_case" where
  "mozcpp_kw_1253 eof la = (Some mozcpp_anon_sym_MOZ_STACK_CLASS, END_STATE)"

definition mozcpp_kw_1254 :: "bool \<Rightarrow> codepoint \<Rightarrow> lex_case" where
  "mozcpp_kw_1254 eof la = (None,
      if la = CH_S then ADVANCE 1308 else END_STATE)"

definition mozcpp_kw_1255 :: "bool \<Rightarrow> codepoint \<Rightarrow> lex_case" where
  "mozcpp_kw_1255 eof la = (None,
      if la = CH_L then ADVANCE 1309 else END_STATE)"

definition mozcpp_kw_1256 :: "bool \<Rightarrow> codepoint \<Rightarrow> lex_case" where
  "mozcpp_kw_1256 eof la = (None,
      if la = CH_L then ADVANCE 1310 else END_STATE)"

definition mozcpp_kw_1257 :: "bool \<Rightarrow> codepoint \<Rightarrow> lex_case" where
  "mozcpp_kw_1257 eof la = (None,
      if la = CH_R then ADVANCE 1311 else END_STATE)"

definition mozcpp_kw_1258 :: "bool \<Rightarrow> codepoint \<Rightarrow> lex_case" where
  "mozcpp_kw_1258 eof la = (None,
      if la = CH_I then ADVANCE 1312 else END_STATE)"

definition mozcpp_kw_1259 :: "bool \<Rightarrow> codepoint \<Rightarrow> lex_case" where
  "mozcpp_kw_1259 eof la = (Some mozcpp_anon_sym_PS_GET_LOCKLESS, END_STATE)"

definition mozcpp_kw_1260 :: "bool \<Rightarrow> codepoint \<Rightarrow> lex_case" where
  "mozcpp_kw_1260 eof la = (None,
      if la = CH_UNDERSCORE then ADVANCE 1313 else END_STATE)"

definition mozcpp_kw_1261 :: "bool \<Rightarrow> codepoint \<Rightarrow> lex_case" where
  "mozcpp_kw_1261 eof la = (None,
      if la = CH_UNDERSCORE then ADVANCE 1314 else END_STATE)"

definition mozcpp_kw_1262 :: "bool \<Rightarrow> codepoint \<Rightarrow> lex_case" where
  "mozcpp_kw_1262 eof la = (Some mozcpp_anon_sym_SDB_TRY_INSPECT, END_STATE)"

definition mozcpp_kw_1263 :: "bool \<Rightarrow> codepoint \<Rightarrow> lex_case" where
  "mozcpp_kw_1263 eof la = (None,
      if la = CH_T then ADVANCE 1315 else END_STATE)"

definition mozcpp_kw_1264 :: "bool \<Rightarrow> codepoint \<Rightarrow> lex_case" where
  "mozcpp_kw_1264 eof la = (Some mozcpp_anon_sym_CACHE_TRY_UNWRAP, END_STATE)"

definition mozcpp_kw_1265 :: "bool \<Rightarrow> codepoint \<Rightarrow> lex_case" where
  "mozcpp_kw_1265 eof la = (None,
      if la = CH_I then ADVANCE 1316 else END_STATE)"

definition mozcpp_kw_1266 :: "bool \<Rightarrow> codepoint \<Rightarrow> lex_case" where
  "mozcpp_kw_1266 eof la = (None,
      if la = CH_A then ADVANCE 1317 else END_STATE)"

definition mozcpp_kw_1267 :: "bool \<Rightarrow> codepoint \<Rightarrow> lex_case" where
  "mozcpp_kw_1267 eof la = (None,
      if la = CH_E then ADVANCE 1318 else END_STATE)"

definition mozcpp_kw_1268 :: "bool \<Rightarrow> codepoint \<Rightarrow> lex_case" where
  "mozcpp_kw_1268 eof la = (None,
      if la = CH_S then ADVANCE 1319 else END_STATE)"

definition mozcpp_kw_1269 :: "bool \<Rightarrow> codepoint \<Rightarrow> lex_case" where
  "mozcpp_kw_1269 eof la = (None,
      if la = CH_P then ADVANCE 1320 else END_STATE)"

definition mozcpp_kw_1270 :: "bool \<Rightarrow> codepoint \<Rightarrow> lex_case" where
  "mozcpp_kw_1270 eof la = (None,
      if la = CH_R then ADVANCE 1321 else END_STATE)"

definition mozcpp_kw_1271 :: "bool \<Rightarrow> codepoint \<Rightarrow> lex_case" where
  "mozcpp_kw_1271 eof la = (None,
      if la = CH_F then ADVANCE 1322 else END_STATE)"

definition mozcpp_kw_1272 :: "bool \<Rightarrow> codepoint \<Rightarrow> lex_case" where
  "mozcpp_kw_1272 eof la = (None,
      if la = CH_R then ADVANCE 1323 else END_STATE)"

definition mozcpp_kw_1273 :: "bool \<Rightarrow> codepoint \<Rightarrow> lex_case" where
  "mozcpp_kw_1273 eof la = (None,
      if la = CH_A then ADVANCE 1324 else END_STATE)"

definition mozcpp_kw_1274 :: "bool \<Rightarrow> codepoint \<Rightarrow> lex_case" where
  "mozcpp_kw_1274 eof la = (None,
      if la = CH_N then ADVANCE 1325 else END_STATE)"

definition mozcpp_kw_1275 :: "bool \<Rightarrow> codepoint \<Rightarrow> lex_case" where
  "mozcpp_kw_1275 eof la = (None,
      if la = CH_N then ADVANCE 1326 else END_STATE)"

definition mozcpp_kw_1276 :: "bool \<Rightarrow> codepoint \<Rightarrow> lex_case" where
  "mozcpp_kw_1276 eof la = (None,
      if la = CH_T then ADVANCE 1327 else END_STATE)"

definition mozcpp_kw_1277 :: "bool \<Rightarrow> codepoint \<Rightarrow> lex_case" where
  "mozcpp_kw_1277 eof la = (None,
      if la = CH_O then ADVANCE 1328 else END_STATE)"

definition mozcpp_kw_1278 :: "bool \<Rightarrow> codepoint \<Rightarrow> lex_case" where
  "mozcpp_kw_1278 eof la = (None,
      if la = CH_D then ADVANCE 1329 else END_STATE)"

definition mozcpp_kw_1279 :: "bool \<Rightarrow> codepoint \<Rightarrow> lex_case" where
  "mozcpp_kw_1279 eof la = (None,
      if la = CH_O then ADVANCE 1330 else END_STATE)"

definition mozcpp_kw_1280 :: "bool \<Rightarrow> codepoint \<Rightarrow> lex_case" where
  "mozcpp_kw_1280 eof la = (None,
      if la = CH_UNDERSCORE then ADVANCE 1331 else END_STATE)"

definition mozcpp_kw_1281 :: "bool \<Rightarrow> codepoint \<Rightarrow> lex_case" where
  "mozcpp_kw_1281 eof la = (None,
      if la = CH_UNDERSCORE then ADVANCE 1332 else END_STATE)"

definition mozcpp_kw_1282 :: "bool \<Rightarrow> codepoint \<Rightarrow> lex_case" where
  "mozcpp_kw_1282 eof la = (None,
      if la = CH_T then ADVANCE 1333 else END_STATE)"

definition mozcpp_kw_1283 :: "bool \<Rightarrow> codepoint \<Rightarrow> lex_case" where
  "mozcpp_kw_1283 eof la = (None,
      if la = CH_T then ADVANCE 1334 else END_STATE)"

definition mozcpp_kw_1284 :: "bool \<Rightarrow> codepoint \<Rightarrow> lex_case" where
  "mozcpp_kw_1284 eof la = (Some mozcpp_anon_sym_MOZ_MAYBE_UNUSED, END_STATE)"

definition mozcpp_kw_1285 :: "bool \<Rightarrow> codepoint \<Rightarrow> lex_case" where
  "mozcpp_kw_1285 eof la = (None,
      if la = CH_E then ADVANCE 1335 else END_STATE)"

definition mozcpp_kw_1286 :: "bool \<Rightarrow> codepoint \<Rightarrow> lex_case" where
  "mozcpp_kw_1286 eof la = (None,
      if la = CH_E then ADVANCE 1336 else END_STATE)"

definition mozcpp_kw_1287 :: "bool \<Rightarrow> codepoint \<Rightarrow> lex_case" where
  "mozcpp_kw_1287 eof la = (None,
      if la = CH_F then ADVANCE 1337 else END_STATE)"

definition mozcpp_kw_1288 :: "bool \<Rightarrow> codepoint \<Rightarrow> lex_case" where
  "mozcpp_kw_1288 eof la = (None,
      if la = CH_E then ADVANCE 1338 else END_STATE)"

definition mozcpp_kw_1289 :: "bool \<Rightarrow> codepoint \<Rightarrow> lex_case" where
  "mozcpp_kw_1289 eof la = (None,
      if la = CH_A then ADVANCE 1339 else END_STATE)"

definition mozcpp_kw_1290 :: "bool \<Rightarrow> codepoint \<Rightarrow> lex_case" where
  "mozcpp_kw_1290 eof la = (None,
      if la = CH_B then ADVANCE 1340 else END_STATE)"

definition mozcpp_kw_1291 :: "bool \<Rightarrow> codepoint \<Rightarrow> lex_case" where
  "mozcpp_kw_1291 eof la = (Some mozcpp_anon_sym_MOZ_NEVER_INLINE,
      if la = CH_UNDERSCORE then ADVANCE 1341 else END_STATE)"

definition mozcpp_kw_1292 :: "bool \<Rightarrow> codepoint \<Rightarrow> lex_case" where
  "mozcpp_kw_1292 eof la = (None,
      if la = CH_S then ADVANCE 1342 else END_STATE)"

definition mozcpp_kw_1293 :: "bool \<Rightarrow> codepoint \<Rightarrow> lex_case" where
  "mozcpp_kw_1293 eof la = (None,
      if la = CH_R then ADVANCE 1343 else END_STATE)"

definition mozcpp_kw_1294 :: "bool \<Rightarrow> codepoint \<Rightarrow> lex_case" where
  "mozcpp_kw_1294 eof la = (Some mozcpp_anon_sym_MOZ_NON_AUTOABLE, END_STATE)"

definition mozcpp_kw_1295 :: "bool \<Rightarrow> codepoint \<Rightarrow> lex_case" where
  "mozcpp_kw_1295 eof la = (None,
      if la = CH_L then ADVANCE 1344 else END_STATE)"

definition mozcpp_kw_1296 :: "bool \<Rightarrow> codepoint \<Rightarrow> lex_case" where
  "mozcpp_kw_1296 eof la = (None,
      if la = CH_E then ADVANCE 1345 else END_STATE)"

definition mozcpp_kw_1297 :: "bool \<Rightarrow> codepoint \<Rightarrow> lex_case" where
  "mozcpp_kw_1297 eof la = (None,
      if la = CH_Y then ADVANCE 1346 else END_STATE)"

definition mozcpp_kw_1298 :: "bool \<Rightarrow> codepoint \<Rightarrow> lex_case" where
  "mozcpp_kw_1298 eof la = (Some mozcpp_anon_sym_MOZ_NORETURN_PTR, END_STATE)"

definition mozcpp_kw_1299 :: "bool \<Rightarrow> codepoint \<Rightarrow> lex_case" where
  "mozcpp_kw_1299 eof la = (None,
      if la = CH_L then ADVANCE 1347 else END_STATE)"

definition mozcpp_kw_1300 :: "bool \<Rightarrow> codepoint \<Rightarrow> lex_case" where
  "mozcpp_kw_1300 eof la = (None,
      if la = CH_C then ADVANCE 1348 else END_STATE)"

definition mozcpp_kw_1301 :: "bool \<Rightarrow> codepoint \<Rightarrow> lex_case" where
  "mozcpp_kw_1301 eof la = (None,
      if la = CH_O then ADVANCE 1349 else END_STATE)"

definition mozcpp_kw_1302 :: "bool \<Rightarrow> codepoint \<Rightarrow> lex_case" where
  "mozcpp_kw_1302 eof la = (None,
      if la = CH_S then ADVANCE 1350 else
      if la = CH_U then ADVANCE 1351 else END_STATE)"

definition mozcpp_kw_1303 :: "bool \<Rightarrow> codepoint \<Rightarrow> lex_case" where
  "mozcpp_kw_1303 eof la = (None,
      if la = CH_UNDERSCORE then ADVANCE 1352 else END_STATE)"

definition mozcpp_kw_1304 :: "bool \<Rightarrow> codepoint \<Rightarrow> lex_case" where
  "mozcpp_kw_1304 eof la = (None,
      if la = CH_N then ADVANCE 1353 else END_STATE)"

definition mozcpp_kw_1305 :: "bool \<Rightarrow> codepoint \<Rightarrow> lex_case" where
  "mozcpp_kw_1305 eof la = (None,
      if la = CH_T then ADVANCE 1354 else END_STATE)"

definition mozcpp_kw_1306 :: "bool \<Rightarrow> codepoint \<Rightarrow> lex_case" where
  "mozcpp_kw_1306 eof la = (None,
      if la = CH_UNDERSCORE then ADVANCE 1355 else END_STATE)"

definition mozcpp_kw_1307 :: "bool \<Rightarrow> codepoint \<Rightarrow> lex_case" where
  "mozcpp_kw_1307 eof la = (None,
      if la = CH_E then ADVANCE 1356 else END_STATE)"

definition mozcpp_kw_1308 :: "bool \<Rightarrow> codepoint \<Rightarrow> lex_case" where
  "mozcpp_kw_1308 eof la = (Some mozcpp_anon_sym_MOZ_STATIC_CLASS, END_STATE)"

definition mozcpp_kw_1309 :: "bool \<Rightarrow> codepoint \<Rightarrow> lex_case" where
  "mozcpp_kw_1309 eof la = (None,
      if la = CH_UNDERSCORE then ADVANCE 1357 else END_STATE)"

definition mozcpp_kw_1310 :: "bool \<Rightarrow> codepoint \<Rightarrow> lex_case" where
  "mozcpp_kw_1310 eof la = (None,
      if la = CH_A then ADVANCE 1358 else END_STATE)"

definition mozcpp_kw_1311 :: "bool \<Rightarrow> codepoint \<Rightarrow> lex_case" where
  "mozcpp_kw_1311 eof la = (None,
      if la = CH_UNDERSCORE then ADVANCE 1359 else END_STATE)"

definition mozcpp_kw_1312 :: "bool \<Rightarrow> codepoint \<Rightarrow> lex_case" where
  "mozcpp_kw_1312 eof la = (None,
      if la = CH_S then ADVANCE 1360 else END_STATE)"

definition mozcpp_kw_1313 :: "bool \<Rightarrow> codepoint \<Rightarrow> lex_case" where
  "mozcpp_kw_1313 eof la = (None,
      if la = CH_U then ADVANCE 1361 else END_STATE)"

definition mozcpp_kw_1314 :: "bool \<Rightarrow> codepoint \<Rightarrow> lex_case" where
  "mozcpp_kw_1314 eof la = (None,
      if la = CH_U then ADVANCE 1362 else END_STATE)"

definition mozcpp_kw_1315 :: "bool \<Rightarrow> codepoint \<Rightarrow> lex_case" where
  "mozcpp_kw_1315 eof la = (Some mozcpp_anon_sym_CACHE_TRY_INSPECT, END_STATE)"

definition mozcpp_kw_1316 :: "bool \<Rightarrow> codepoint \<Rightarrow> lex_case" where
  "mozcpp_kw_1316 eof la = (None,
      if la = CH_B then ADVANCE 1363 else END_STATE)"

definition mozcpp_kw_1317 :: "bool \<Rightarrow> codepoint \<Rightarrow> lex_case" where
  "mozcpp_kw_1317 eof la = (None,
      if la = CH_R then ADVANCE 1364 else END_STATE)"

definition mozcpp_kw_1318 :: "bool \<Rightarrow> codepoint \<Rightarrow> lex_case" where
  "mozcpp_kw_1318 eof la = (Some mozcpp_anon_sym_MOZ_ALWAYS_INLINE,
      if la = CH_UNDERSCORE then ADVANCE 1365 else END_STATE)"

definition mozcpp_kw_1319 :: "bool \<Rightarrow> codepoint \<Rightarrow> lex_case" where
  "mozcpp_kw_1319 eof la = (None,
      if la = CH_T then ADVANCE 1366 else END_STATE)"

definition mozcpp_kw_1320 :: "bool \<Rightarrow> codepoint \<Rightarrow> lex_case" where
  "mozcpp_kw_1320 eof la = (None,
      if la = CH_T then ADVANCE 1367 else END_STATE)"

definition mozcpp_kw_1321 :: "bool \<Rightarrow> codepoint \<Rightarrow> lex_case" where
  "mozcpp_kw_1321 eof la = (None,
      if la = CH_D then ADVANCE 1368 else END_STATE)"

definition mozcpp_kw_1322 :: "bool \<Rightarrow> codepoint \<Rightarrow> lex_case" where
  "mozcpp_kw_1322 eof la = (Some mozcpp_anon_sym_MOZ_FORMAT_PRINTF, END_STATE)"

definition mozcpp_kw_1323 :: "bool \<Rightarrow> codepoint \<Rightarrow> lex_case" where
  "mozcpp_kw_1323 eof la = (None,
      if la = CH_UNDERSCORE then ADVANCE 1369 else END_STATE)"

definition mozcpp_kw_1324 :: "bool \<Rightarrow> codepoint \<Rightarrow> lex_case" where
  "mozcpp_kw_1324 eof la = (None,
      if la = CH_C then ADVANCE 1370 else END_STATE)"

definition mozcpp_kw_1325 :: "bool \<Rightarrow> codepoint \<Rightarrow> lex_case" where
  "mozcpp_kw_1325 eof la = (None,
      if la = CH_L then ADVANCE 1371 else END_STATE)"

definition mozcpp_kw_1326 :: "bool \<Rightarrow> codepoint \<Rightarrow> lex_case" where
  "mozcpp_kw_1326 eof la = (Some mozcpp_anon_sym_MOZ_HAVE_NORETURN,
      if la = CH_UNDERSCORE then ADVANCE 1372 else END_STATE)"

definition mozcpp_kw_1327 :: "bool \<Rightarrow> codepoint \<Rightarrow> lex_case" where
  "mozcpp_kw_1327 eof la = (None,
      if la = CH_I then ADVANCE 1373 else END_STATE)"

definition mozcpp_kw_1328 :: "bool \<Rightarrow> codepoint \<Rightarrow> lex_case" where
  "mozcpp_kw_1328 eof la = (None,
      if la = CH_V then ADVANCE 1374 else END_STATE)"

definition mozcpp_kw_1329 :: "bool \<Rightarrow> codepoint \<Rightarrow> lex_case" where
  "mozcpp_kw_1329 eof la = (None,
      if la = CH_UNDERSCORE then ADVANCE 1375 else END_STATE)"

definition mozcpp_kw_1330 :: "bool \<Rightarrow> codepoint \<Rightarrow> lex_case" where
  "mozcpp_kw_1330 eof la = (None,
      if la = CH_R then ADVANCE 1376 else END_STATE)"

definition mozcpp_kw_1331 :: "bool \<Rightarrow> codepoint \<Rightarrow> lex_case" where
  "mozcpp_kw_1331 eof la = (None,
      if la = CH_A then ADVANCE 1377 else END_STATE)"

definition mozcpp_kw_1332 :: "bool \<Rightarrow> codepoint \<Rightarrow> lex_case" where
  "mozcpp_kw_1332 eof la = (None,
      if la = CH_C then ADVANCE 1378 else END_STATE)"

definition mozcpp_kw_1333 :: "bool \<Rightarrow> codepoint \<Rightarrow> lex_case" where
  "mozcpp_kw_1333 eof la = (Some mozcpp_anon_sym_MOZ_IS_CLASS_INIT, END_STATE)"

definition mozcpp_kw_1334 :: "bool \<Rightarrow> codepoint \<Rightarrow> lex_case" where
  "mozcpp_kw_1334 eof la = (None,
      if la = CH_O then ADVANCE 1379 else END_STATE)"

definition mozcpp_kw_1335 :: "bool \<Rightarrow> codepoint \<Rightarrow> lex_case" where
  "mozcpp_kw_1335 eof la = (None,
      if la = CH_R then ADVANCE 1380 else END_STATE)"

definition mozcpp_kw_1336 :: "bool \<Rightarrow> codepoint \<Rightarrow> lex_case" where
  "mozcpp_kw_1336 eof la = (Some mozcpp_anon_sym_MOZ_MUST_OVERRIDE, END_STATE)"

definition mozcpp_kw_1337 :: "bool \<Rightarrow> codepoint \<Rightarrow> lex_case" where
  "mozcpp_kw_1337 eof la = (None,
      if la = CH_R then ADVANCE 1381 else END_STATE)"

definition mozcpp_kw_1338 :: "bool \<Rightarrow> codepoint \<Rightarrow> lex_case" where
  "mozcpp_kw_1338 eof la = (Some mozcpp_anon_sym_MOZ_MUST_USE_TYPE, END_STATE)"

definition mozcpp_kw_1339 :: "bool \<Rightarrow> codepoint \<Rightarrow> lex_case" where
  "mozcpp_kw_1339 eof la = (None,
      if la = CH_B then ADVANCE 1382 else END_STATE)"

definition mozcpp_kw_1340 :: "bool \<Rightarrow> codepoint \<Rightarrow> lex_case" where
  "mozcpp_kw_1340 eof la = (None,
      if la = CH_L then ADVANCE 1383 else END_STATE)"

definition mozcpp_kw_1341 :: "bool \<Rightarrow> codepoint \<Rightarrow> lex_case" where
  "mozcpp_kw_1341 eof la = (None,
      if la = CH_D then ADVANCE 1384 else END_STATE)"

definition mozcpp_kw_1342 :: "bool \<Rightarrow> codepoint \<Rightarrow> lex_case" where
  "mozcpp_kw_1342 eof la = (Some mozcpp_anon_sym_MOZ_NONHEAP_CLASS, END_STATE)"

definition mozcpp_kw_1343 :: "bool \<Rightarrow> codepoint \<Rightarrow> lex_case" where
  "mozcpp_kw_1343 eof la = (None,
      if la = CH_N then ADVANCE 1385 else END_STATE)"

definition mozcpp_kw_1344 :: "bool \<Rightarrow> codepoint \<Rightarrow> lex_case" where
  "mozcpp_kw_1344 eof la = (None,
      if la = CH_E then ADVANCE 1386 else END_STATE)"

definition mozcpp_kw_1345 :: "bool \<Rightarrow> codepoint \<Rightarrow> lex_case" where
  "mozcpp_kw_1345 eof la = (None,
      if la = CH_F then ADVANCE 1387 else END_STATE)"

definition mozcpp_kw_1346 :: "bool \<Rightarrow> codepoint \<Rightarrow> lex_case" where
  "mozcpp_kw_1346 eof la = (None,
      if la = CH_UNDERSCORE then ADVANCE 1388 else END_STATE)"

definition mozcpp_kw_1347 :: "bool \<Rightarrow> codepoint \<Rightarrow> lex_case" where
  "mozcpp_kw_1347 eof la = (None,
      if la = CH_E then ADVANCE 1389 else END_STATE)"

definition mozcpp_kw_1348 :: "bool \<Rightarrow> codepoint \<Rightarrow> lex_case" where
  "mozcpp_kw_1348 eof la = (None,
      if la = CH_UNDERSCORE then ADVANCE 1390 else END_STATE)"

definition mozcpp_kw_1349 :: "bool \<Rightarrow> codepoint \<Rightarrow> lex_case" where
  "mozcpp_kw_1349 eof la = (None,
      if la = CH_N then ADVANCE 1391 else END_STATE)"

definition mozcpp_kw_1350 :: "bool \<Rightarrow> codepoint \<Rightarrow> lex_case" where
  "mozcpp_kw_1350 eof la = (None,
      if la = CH_I then ADVANCE 1392 else END_STATE)"

definition mozcpp_kw_1351 :: "bool \<Rightarrow> codepoint \<Rightarrow> lex_case" where
  "mozcpp_kw_1351 eof la = (None,
      if la = CH_N then ADVANCE 1393 else END_STATE)"

definition mozcpp_kw_1352 :: "bool \<Rightarrow> codepoint \<Rightarrow> lex_case" where
  "mozcpp_kw_1352 eof la = (None,
      if la = CH_A then ADVANCE 1394 else END_STATE)"

definition mozcpp_kw_1353 :: "bool \<Rightarrow> codepoint \<Rightarrow> lex_case" where
  "mozcpp_kw_1353 eof la = (None,
      if la = CH_O then ADVANCE 1395 else END_STATE)"

definition mozcpp_kw_1354 :: "bool \<Rightarrow> codepoint \<Rightarrow> lex_case" where
  "mozcpp_kw_1354 eof la = (None,
      if la = CH_U then ADVANCE 1396 else END_STATE)"

definition mozcpp_kw_1355 :: "bool \<Rightarrow> codepoint \<Rightarrow> lex_case" where
  "mozcpp_kw_1355 eof la = (None,
      if la = CH_N then ADVANCE 1397 else END_STATE)"

definition mozcpp_kw_1356 :: "bool \<Rightarrow> codepoint \<Rightarrow> lex_case" where
  "mozcpp_kw_1356 eof la = (None,
      if la = CH_UNDERSCORE then ADVANCE 1398 else END_STATE)"

definition mozcpp_kw_1357 :: "bool \<Rightarrow> codepoint \<Rightarrow> lex_case" where
  "mozcpp_kw_1357 eof la = (None,
      if la = CH_C then ADVANCE 1399 else END_STATE)"

definition mozcpp_kw_1358 :: "bool \<Rightarrow> codepoint \<Rightarrow> lex_case" where
  "mozcpp_kw_1358 eof la = (None,
      if la = CH_S then ADVANCE 1400 else END_STATE)"

definition mozcpp_kw_1359 :: "bool \<Rightarrow> codepoint \<Rightarrow> lex_case" where
  "mozcpp_kw_1359 eof la = (None,
      if la = CH_D then ADVANCE 1401 else END_STATE)"

definition mozcpp_kw_1360 :: "bool \<Rightarrow> codepoint \<Rightarrow> lex_case" where
  "mozcpp_kw_1360 eof la = (None,
      if la = CH_T then ADVANCE 1402 else END_STATE)"

definition mozcpp_kw_1361 :: "bool \<Rightarrow> codepoint \<Rightarrow> lex_case" where
  "mozcpp_kw_1361 eof la = (None,
      if la = CH_N then ADVANCE 1403 else END_STATE)"

definition mozcpp_kw_1362 :: "bool \<Rightarrow> codepoint \<Rightarrow> lex_case" where
  "mozcpp_kw_1362 eof la = (None,
      if la = CH_N then ADVANCE 1404 else END_STATE)"

definition mozcpp_kw_1363 :: "bool \<Rightarrow> codepoint \<Rightarrow> lex_case" where
  "mozcpp_kw_1363 eof la = (None,
      if la = CH_U then ADVANCE 1405 else END_STATE)"

definition mozcpp_kw_1364 :: "bool \<Rightarrow> codepoint \<Rightarrow> lex_case" where
  "mozcpp_kw_1364 eof la = (None,
      if la = CH_Y then ADVANCE 1406 else END_STATE)"

definition mozcpp_kw_1365 :: "bool \<Rightarrow> codepoint \<Rightarrow> lex_case" where
  "mozcpp_kw_1365 eof la = (None,
      if la = CH_E then ADVANCE 1407 else END_STATE)"

definition mozcpp_kw_1366 :: "bool \<Rightarrow> codepoint \<Rightarrow> lex_case" where
  "mozcpp_kw_1366 eof la = (Some mozcpp_anon_sym_MOZ_ASAN_BLACKLIST, END_STATE)"

definition mozcpp_kw_1367 :: "bool \<Rightarrow> codepoint \<Rightarrow> lex_case" where
  "mozcpp_kw_1367 eof la = (Some mozcpp_anon_sym_MOZ_CAN_RUN_SCRIPT,
      if la = CH_UNDERSCORE then ADVANCE 1408 else END_STATE)"

definition mozcpp_kw_1368 :: "bool \<Rightarrow> codepoint \<Rightarrow> lex_case" where
  "mozcpp_kw_1368 eof la = (None,
      if la = CH_UNDERSCORE then ADVANCE 1409 else END_STATE)"

definition mozcpp_kw_1369 :: "bool \<Rightarrow> codepoint \<Rightarrow> lex_case" where
  "mozcpp_kw_1369 eof la = (None,
      if la = CH_N then ADVANCE 1410 else END_STATE)"

definition mozcpp_kw_1370 :: "bool \<Rightarrow> codepoint \<Rightarrow> lex_case" where
  "mozcpp_kw_1370 eof la = (None,
      if la = CH_K then ADVANCE 1411 else END_STATE)"

definition mozcpp_kw_1371 :: "bool \<Rightarrow> codepoint \<Rightarrow> lex_case" where
  "mozcpp_kw_1371 eof la = (None,
      if la = CH_I then ADVANCE 1412 else END_STATE)"

definition mozcpp_kw_1372 :: "bool \<Rightarrow> codepoint \<Rightarrow> lex_case" where
  "mozcpp_kw_1372 eof la = (None,
      if la = CH_P then ADVANCE 1413 else END_STATE)"

definition mozcpp_kw_1373 :: "bool \<Rightarrow> codepoint \<Rightarrow> lex_case" where
  "mozcpp_kw_1373 eof la = (None,
      if la = CH_Z then ADVANCE 1414 else END_STATE)"

definition mozcpp_kw_1374 :: "bool \<Rightarrow> codepoint \<Rightarrow> lex_case" where
  "mozcpp_kw_1374 eof la = (None,
      if la = CH_E then ADVANCE 1415 else END_STATE)"

definition mozcpp_kw_1375 :: "bool \<Rightarrow> codepoint \<Rightarrow> lex_case" where
  "mozcpp_kw_1375 eof la = (None,
      if la = CH_O then ADVANCE 1416 else END_STATE)"

definition mozcpp_kw_1376 :: "bool \<Rightarrow> codepoint \<Rightarrow> lex_case" where
  "mozcpp_kw_1376 eof la = (Some mozcpp_anon_sym_MOZ_HEAP_ALLOCATOR, END_STATE)"

definition mozcpp_kw_1377 :: "bool \<Rightarrow> codepoint \<Rightarrow> lex_case" where
  "mozcpp_kw_1377 eof la = (None,
      if la = CH_N then ADVANCE 1417 else END_STATE)"

definition mozcpp_kw_1378 :: "bool \<Rightarrow> codepoint \<Rightarrow> lex_case" where
  "mozcpp_kw_1378 eof la = (None,
      if la = CH_T then ADVANCE 1418 else END_STATE)"

definition mozcpp_kw_1379 :: "bool \<Rightarrow> codepoint \<Rightarrow> lex_case" where
  "mozcpp_kw_1379 eof la = (None,
      if la = CH_UNDERSCORE then ADVANCE 1419 else END_STATE)"

definition mozcpp_kw_1380 :: "bool \<Rightarrow> codepoint \<Rightarrow> lex_case" where
  "mozcpp_kw_1380 eof la = (None,
      if la = CH_UNDERSCORE then ADVANCE 1420 else END_STATE)"

definition mozcpp_kw_1381 :: "bool \<Rightarrow> codepoint \<Rightarrow> lex_case" where
  "mozcpp_kw_1381 eof la = (None,
      if la = CH_O then ADVANCE 1421 else END_STATE)"

definition mozcpp_kw_1382 :: "bool \<Rightarrow> codepoint \<Rightarrow> lex_case" where
  "mozcpp_kw_1382 eof la = (None,
      if la = CH_L then ADVANCE 1422 else END_STATE)"

definition mozcpp_kw_1383 :: "bool \<Rightarrow> codepoint \<Rightarrow> lex_case" where
  "mozcpp_kw_1383 eof la = (None,
      if la = CH_E then ADVANCE 1423 else END_STATE)"

definition mozcpp_kw_1384 :: "bool \<Rightarrow> codepoint \<Rightarrow> lex_case" where
  "mozcpp_kw_1384 eof la = (None,
      if la = CH_E then ADVANCE 1424 else END_STATE)"

definition mozcpp_kw_1385 :: "bool \<Rightarrow> codepoint \<Rightarrow> lex_case" where
  "mozcpp_kw_1385 eof la = (Some mozcpp_anon_sym_MOZ_NONNULL_RETURN, END_STATE)"

definition mozcpp_kw_1386 :: "bool \<Rightarrow> codepoint \<Rightarrow> lex_case" where
  "mozcpp_kw_1386 eof la = (Some mozcpp_anon_sym_MOZ_NON_MEMMOVABLE, END_STATE)"

definition mozcpp_kw_1387 :: "bool \<Rightarrow> codepoint \<Rightarrow> lex_case" where
  "mozcpp_kw_1387 eof la = (Some mozcpp_anon_sym_MOZ_NON_OWNING_REF, END_STATE)"

definition mozcpp_kw_1388 :: "bool \<Rightarrow> codepoint \<Rightarrow> lex_case" where
  "mozcpp_kw_1388 eof la = (None,
      if la = CH_C then ADVANCE 1425 else END_STATE)"

definition mozcpp_kw_1389 :: "bool \<Rightarrow> codepoint \<Rightarrow> lex_case" where
  "mozcpp_kw_1389 eof la = (None,
      if la = CH_A then ADVANCE 1426 else END_STATE)"

definition mozcpp_kw_1390 :: "bool \<Rightarrow> codepoint \<Rightarrow> lex_case" where
  "mozcpp_kw_1390 eof la = (None,
      if la = CH_E then ADVANCE 1427 else END_STATE)"

definition mozcpp_kw_1391 :: "bool \<Rightarrow> codepoint \<Rightarrow> lex_case" where
  "mozcpp_kw_1391 eof la = (None,
      if la = CH_UNDERSCORE then ADVANCE 1428 else END_STATE)"

definition mozcpp_kw_1392 :: "bool \<Rightarrow> codepoint \<Rightarrow> lex_case" where
  "mozcpp_kw_1392 eof la = (None,
      if la = CH_G then ADVANCE 1429 else END_STATE)"

definition mozcpp_kw_1393 :: "bool \<Rightarrow> codepoint \<Rightarrow> lex_case" where
  "mozcpp_kw_1393 eof la = (None,
      if la = CH_S then ADVANCE 1430 else END_STATE)"

definition mozcpp_kw_1394 :: "bool \<Rightarrow> codepoint \<Rightarrow> lex_case" where
  "mozcpp_kw_1394 eof la = (None,
      if la = CH_V then ADVANCE 1431 else END_STATE)"

definition mozcpp_kw_1395 :: "bool \<Rightarrow> codepoint \<Rightarrow> lex_case" where
  "mozcpp_kw_1395 eof la = (None,
      if la = CH_N then ADVANCE 1432 else END_STATE)"

definition mozcpp_kw_1396 :: "bool \<Rightarrow> codepoint \<Rightarrow> lex_case" where
  "mozcpp_kw_1396 eof la = (None,
      if la = CH_R then ADVANCE 1433 else END_STATE)"

definition mozcpp_kw_1397 :: "bool \<Rightarrow> codepoint \<Rightarrow> lex_case" where
  "mozcpp_kw_1397 eof la = (None,
      if la = CH_O then ADVANCE 1434 else END_STATE)"

definition mozcpp_kw_1398 :: "bool \<Rightarrow> codepoint \<Rightarrow> lex_case" where
  "mozcpp_kw_1398 eof la = (None,
      if la = CH_M then ADVANCE 1435 else END_STATE)"

definition mozcpp_kw_1399 :: "bool \<Rightarrow> codepoint \<Rightarrow> lex_case" where
  "mozcpp_kw_1399 eof la = (None,
      if la = CH_L then ADVANCE 1436 else END_STATE)"

definition mozcpp_kw_1400 :: "bool \<Rightarrow> codepoint \<Rightarrow> lex_case" where
  "mozcpp_kw_1400 eof la = (None,
      if la = CH_S then ADVANCE 1437 else END_STATE)"

definition mozcpp_kw_1401 :: "bool \<Rightarrow> codepoint \<Rightarrow> lex_case" where
  "mozcpp_kw_1401 eof la = (None,
      if la = CH_T then ADVANCE 1438 else END_STATE)"

definition mozcpp_kw_1402 :: "bool \<Rightarrow> codepoint \<Rightarrow> lex_case" where
  "mozcpp_kw_1402 eof la = (Some mozcpp_anon_sym_MOZ_TSAN_BLACKLIST, END_STATE)"

definition mozcpp_kw_1403 :: "bool \<Rightarrow> codepoint \<Rightarrow> lex_case" where
  "mozcpp_kw_1403 eof la = (None,
      if la = CH_W then ADVANCE 1439 else END_STATE)"

definition mozcpp_kw_1404 :: "bool \<Rightarrow> codepoint \<Rightarrow> lex_case" where
  "mozcpp_kw_1404 eof la = (None,
      if la = CH_W then ADVANCE 1440 else END_STATE)"

definition mozcpp_kw_1405 :: "bool \<Rightarrow> codepoint \<Rightarrow> lex_case" where
  "mozcpp_kw_1405 eof la = (None,
      if la = CH_T then ADVANCE 1441 else END_STATE)"

definition mozcpp_kw_1406 :: "bool \<Rightarrow> codepoint \<Rightarrow> lex_case" where
  "mozcpp_kw_1406 eof la = (Some mozcpp_anon_sym_MOZ_ALLOW_TEMPORARY, END_STATE)"

definition mozcpp_kw_1407 :: "bool \<Rightarrow> codepoint \<Rightarrow> lex_case" where
  "mozcpp_kw_1407 eof la = (None,
      if la = CH_V then ADVANCE 1442 else END_STATE)"

definition mozcpp_kw_1408 :: "bool \<Rightarrow> codepoint \<Rightarrow> lex_case" where
  "mozcpp_kw_1408 eof la = (None,
      if la = CH_B then ADVANCE 1443 else
      if la = CH_F then ADVANCE 1444 else END_STATE)"

definition mozcpp_kw_1409 :: "bool \<Rightarrow> codepoint \<Rightarrow> lex_case" where
  "mozcpp_kw_1409 eof la = (None,
      if la = CH_O then ADVANCE 1445 else END_STATE)"

definition mozcpp_kw_1410 :: "bool \<Rightarrow> codepoint \<Rightarrow> lex_case" where
  "mozcpp_kw_1410 eof la = (None,
      if la = CH_O then ADVANCE 1446 else END_STATE)"

definition mozcpp_kw_1411 :: "bool \<Rightarrow> codepoint \<Rightarrow> lex_case" where
  "mozcpp_kw_1411 eof la = (None,
      if la = CH_L then ADVANCE 1447 else END_STATE)"

definition mozcpp_kw_1412 :: "bool \<Rightarrow> codepoint \<Rightarrow> lex_case" where
  "mozcpp_kw_1412 eof la = (None,
      if la = CH_N then ADVANCE 1448 else END_STATE)"

definition mozcpp_kw_1413 :: "bool \<Rightarrow> codepoint \<Rightarrow> lex_case" where
  "mozcpp_kw_1413 eof la = (None,
      if la = CH_T then ADVANCE 1449 else END_STATE)"

definition mozcpp_kw_1414 :: "bool \<Rightarrow> codepoint \<Rightarrow> lex_case" where
  "mozcpp_kw_1414 eof la = (None,
      if la = CH_E then ADVANCE 1450 else END_STATE)"

definition mozcpp_kw_1415 :: "bool \<Rightarrow> codepoint \<Rightarrow> lex_case" where
  "mozcpp_kw_1415 eof la = (None,
      if la = CH_R then ADVANCE 1451 else END_STATE)"

definition mozcpp_kw_1416 :: "bool \<Rightarrow> codepoint \<Rightarrow> lex_case" where
  "mozcpp_kw_1416 eof la = (None,
      if la = CH_V then ADVANCE 1452 else END_STATE)"

definition mozcpp_kw_1417 :: "bool \<Rightarrow> codepoint \<Rightarrow> lex_case" where
  "mozcpp_kw_1417 eof la = (None,
      if la = CH_N then ADVANCE 1453 else END_STATE)"

definition mozcpp_kw_1418 :: "bool \<Rightarrow> codepoint \<Rightarrow> lex_case" where
  "mozcpp_kw_1418 eof la = (None,
      if la = CH_O then ADVANCE 1454 else END_STATE)"

definition mozcpp_kw_1419 :: "bool \<Rightarrow> codepoint \<Rightarrow> lex_case" where
  "mozcpp_kw_1419 eof la = (None,
      if la = CH_R then ADVANCE 1455 else END_STATE)"

definition mozcpp_kw_1420 :: "bool \<Rightarrow> codepoint \<Rightarrow> lex_case" where
  "mozcpp_kw_1420 eof la = (None,
      if la = CH_M then ADVANCE 1456 else END_STATE)"

definition mozcpp_kw_1421 :: "bool \<Rightarrow> codepoint \<Rightarrow> lex_case" where
  "mozcpp_kw_1421 eof la = (None,
      if la = CH_M then ADVANCE 1457 else END_STATE)"

definition mozcpp_kw_1422 :: "bool \<Rightarrow> codepoint \<Rightarrow> lex_case" where
  "mozcpp_kw_1422 eof la = (None,
      if la = CH_E then ADVANCE 1458 else END_STATE)"

definition mozcpp_kw_1423 :: "bool \<Rightarrow> codepoint \<Rightarrow> lex_case" where
  "mozcpp_kw_1423 eof la = (None,
      if la = CH_UNDERSCORE then ADVANCE 1459 else END_STATE)"

definition mozcpp_kw_1424 :: "bool \<Rightarrow> codepoint \<Rightarrow> lex_case" where
  "mozcpp_kw_1424 eof la = (None,
      if la = CH_B then ADVANCE 1460 else END_STATE)"

definition mozcpp_kw_1425 :: "bool \<Rightarrow> codepoint \<Rightarrow> lex_case" where
  "mozcpp_kw_1425 eof la = (None,
      if la = CH_L then ADVANCE 1461 else END_STATE)"

definition mozcpp_kw_1426 :: "bool \<Rightarrow> codepoint \<Rightarrow> lex_case" where
  "mozcpp_kw_1426 eof la = (None,
      if la = CH_S then ADVANCE 1462 else END_STATE)"

definition mozcpp_kw_1427 :: "bool \<Rightarrow> codepoint \<Rightarrow> lex_case" where
  "mozcpp_kw_1427 eof la = (None,
      if la = CH_X then ADVANCE 1463 else END_STATE)"

definition mozcpp_kw_1428 :: "bool \<Rightarrow> codepoint \<Rightarrow> lex_case" where
  "mozcpp_kw_1428 eof la = (None,
      if la = CH_T then ADVANCE 1464 else END_STATE)"

definition mozcpp_kw_1429 :: "bool \<Rightarrow> codepoint \<Rightarrow> lex_case" where
  "mozcpp_kw_1429 eof la = (None,
      if la = CH_N then ADVANCE 1465 else END_STATE)"

definition mozcpp_kw_1430 :: "bool \<Rightarrow> codepoint \<Rightarrow> lex_case" where
  "mozcpp_kw_1430 eof la = (None,
      if la = CH_I then ADVANCE 1466 else END_STATE)"

definition mozcpp_kw_1431 :: "bool \<Rightarrow> codepoint \<Rightarrow> lex_case" where
  "mozcpp_kw_1431 eof la = (None,
      if la = CH_O then ADVANCE 1467 else END_STATE)"

definition mozcpp_kw_1432 :: "bool \<Rightarrow> codepoint \<Rightarrow> lex_case" where
  "mozcpp_kw_1432 eof la = (None,
      if la = CH_T then ADVANCE 1468 else END_STATE)"

definition mozcpp_kw_1433 :: "bool \<Rightarrow> codepoint \<Rightarrow> lex_case" where
  "mozcpp_kw_1433 eof la = (None,
      if la = CH_N then ADVANCE 1469 else END_STATE)"

definition mozcpp_kw_1434 :: "bool \<Rightarrow> codepoint \<Rightarrow> lex_case" where
  "mozcpp_kw_1434 eof la = (None,
      if la = CH_N then ADVANCE 1470 else END_STATE)"

definition mozcpp_kw_1435 :: "bool \<Rightarrow> codepoint \<Rightarrow> lex_case" where
  "mozcpp_kw_1435 eof la = (None,
      if la = CH_E then ADVANCE 1471 else END_STATE)"

definition mozcpp_kw_1436 :: "bool \<Rightarrow> codepoint \<Rightarrow> lex_case" where
  "mozcpp_kw_1436 eof la = (None,
      if la = CH_A then ADVANCE 1472 else END_STATE)"

definition mozcpp_kw_1437 :: "bool \<Rightarrow> codepoint \<Rightarrow> lex_case" where
  "mozcpp_kw_1437 eof la = (Some mozcpp_anon_sym_MOZ_TEMPORARY_CLASS, END_STATE)"

definition mozcpp_kw_1438 :: "bool \<Rightarrow> codepoint \<Rightarrow> lex_case" where
  "mozcpp_kw_1438 eof la = (None,
      if la = CH_O then ADVANCE 1473 else END_STATE)"

definition mozcpp_kw_1439 :: "bool \<Rightarrow> codepoint \<Rightarrow> lex_case" where
  "mozcpp_kw_1439 eof la = (None,
      if la = CH_R then ADVANCE 1474 else END_STATE)"

definition mozcpp_kw_1440 :: "bool \<Rightarrow> codepoint \<Rightarrow> lex_case" where
  "mozcpp_kw_1440 eof la = (None,
      if la = CH_R then ADVANCE 1475 else END_STATE)"

definition mozcpp_kw_1441 :: "bool \<Rightarrow> codepoint \<Rightarrow> lex_case" where
  "mozcpp_kw_1441 eof la = (None,
      if la = CH_E then ADVANCE 1476 else END_STATE)"

definition mozcpp_kw_1442 :: "bool \<Rightarrow> codepoint \<Rightarrow> lex_case" where
  "mozcpp_kw_1442 eof la = (None,
      if la = CH_E then ADVANCE 1477 else END_STATE)"

definition mozcpp_kw_1443 :: "bool \<Rightarrow> codepoint \<Rightarrow> lex_case" where
  "mozcpp_kw_1443 eof la = (None,
      if la = CH_O then ADVANCE 1478 else END_STATE)"

definition mozcpp_kw_1444 :: "bool \<Rightarrow> codepoint \<Rightarrow> lex_case" where
  "mozcpp_kw_1444 eof la = (None,
      if la = CH_O then ADVANCE 1479 else END_STATE)"

definition mozcpp_kw_1445 :: "bool \<Rightarrow> codepoint \<Rightarrow> lex_case" where
  "mozcpp_kw_1445 eof la = (None,
      if la = CH_B then ADVANCE 1480 else END_STATE)"

definition mozcpp_kw_1446 :: "bool \<Rightarrow> codepoint \<Rightarrow> lex_case" where
  "mozcpp_kw_1446 eof la = (None,
      if la = CH_R then ADVANCE 1481 else END_STATE)"

definition mozcpp_kw_1447 :: "bool \<Rightarrow> codepoint \<Rightarrow> lex_case" where
  "mozcpp_kw_1447 eof la = (None,
      if la = CH_I then ADVANCE 1482 else END_STATE)"

definition mozcpp_kw_1448 :: "bool \<Rightarrow> codepoint \<Rightarrow> lex_case" where
  "mozcpp_kw_1448 eof la = (None,
      if la = CH_E then ADVANCE 1483 else END_STATE)"

definition mozcpp_kw_1449 :: "bool \<Rightarrow> codepoint \<Rightarrow> lex_case" where
  "mozcpp_kw_1449 eof la = (None,
      if la = CH_R then ADVANCE 1484 else END_STATE)"

definition mozcpp_kw_1450 :: "bool \<Rightarrow> codepoint \<Rightarrow> lex_case" where
  "mozcpp_kw_1450 eof la = (None,
      if la = CH_UNDERSCORE then ADVANCE 1485 else END_STATE)"

definition mozcpp_kw_1451 :: "bool \<Rightarrow> codepoint \<Rightarrow> lex_case" where
  "mozcpp_kw_1451 eof la = (None,
      if la = CH_F then ADVANCE 1486 else END_STATE)"

definition mozcpp_kw_1452 :: "bool \<Rightarrow> codepoint \<Rightarrow> lex_case" where
  "mozcpp_kw_1452 eof la = (None,
      if la = CH_E then ADVANCE 1487 else END_STATE)"

definition mozcpp_kw_1453 :: "bool \<Rightarrow> codepoint \<Rightarrow> lex_case" where
  "mozcpp_kw_1453 eof la = (None,
      if la = CH_O then ADVANCE 1488 else END_STATE)"

definition mozcpp_kw_1454 :: "bool \<Rightarrow> codepoint \<Rightarrow> lex_case" where
  "mozcpp_kw_1454 eof la = (None,
      if la = CH_R then ADVANCE 1489 else END_STATE)"

definition mozcpp_kw_1455 :: "bool \<Rightarrow> codepoint \<Rightarrow> lex_case" where
  "mozcpp_kw_1455 eof la = (None,
      if la = CH_E then ADVANCE 1490 else END_STATE)"

definition mozcpp_kw_1456 :: "bool \<Rightarrow> codepoint \<Rightarrow> lex_case" where
  "mozcpp_kw_1456 eof la = (None,
      if la = CH_U then ADVANCE 1491 else END_STATE)"

definition mozcpp_kw_1457 :: "bool \<Rightarrow> codepoint \<Rightarrow> lex_case" where
  "mozcpp_kw_1457 eof la = (None,
      if la = CH_UNDERSCORE then ADVANCE 1492 else END_STATE)"

definition mozcpp_kw_1458 :: "bool \<Rightarrow> codepoint \<Rightarrow> lex_case" where
  "mozcpp_kw_1458 eof la = (None,
      if la = CH_UNDERSCORE then ADVANCE 1493 else END_STATE)"

definition mozcpp_kw_1459 :: "bool \<Rightarrow> codepoint \<Rightarrow> lex_case" where
  "mozcpp_kw_1459 eof la = (None,
      if la = CH_T then ADVANCE 1494 else END_STATE)"

definition mozcpp_kw_1460 :: "bool \<Rightarrow> codepoint \<Rightarrow> lex_case" where
  "mozcpp_kw_1460 eof la = (None,
      if la = CH_U then ADVANCE 1495 else END_STATE)"

definition mozcpp_kw_1461 :: "bool \<Rightarrow> codepoint \<Rightarrow> lex_case" where
  "mozcpp_kw_1461 eof la = (None,
      if la = CH_A then ADVANCE 1496 else END_STATE)"

definition mozcpp_kw_1462 :: "bool \<Rightarrow> codepoint \<Rightarrow> lex_case" where
  "mozcpp_kw_1462 eof la = (None,
      if la = CH_E then ADVANCE 1497 else END_STATE)"

definition mozcpp_kw_1463 :: "bool \<Rightarrow> codepoint \<Rightarrow> lex_case" where
  "mozcpp_kw_1463 eof la = (None,
      if la = CH_P then ADVANCE 1498 else END_STATE)"

definition mozcpp_kw_1464 :: "bool \<Rightarrow> codepoint \<Rightarrow> lex_case" where
  "mozcpp_kw_1464 eof la = (None,
      if la = CH_E then ADVANCE 1499 else END_STATE)"

definition mozcpp_kw_1465 :: "bool \<Rightarrow> codepoint \<Rightarrow> lex_case" where
  "mozcpp_kw_1465 eof la = (None,
      if la = CH_E then ADVANCE 1500 else END_STATE)"

definition mozcpp_kw_1466 :: "bool \<Rightarrow> codepoint \<Rightarrow> lex_case" where
  "mozcpp_kw_1466 eof la = (None,
      if la = CH_G then ADVANCE 1501 else END_STATE)"

definition mozcpp_kw_1467 :: "bool \<Rightarrow> codepoint \<Rightarrow> lex_case" where
  "mozcpp_kw_1467 eof la = (None,
      if la = CH_I then ADVANCE 1502 else END_STATE)"

definition mozcpp_kw_1468 :: "bool \<Rightarrow> codepoint \<Rightarrow> lex_case" where
  "mozcpp_kw_1468 eof la = (None,
      if la = CH_R then ADVANCE 1503 else END_STATE)"

definition mozcpp_kw_1469 :: "bool \<Rightarrow> codepoint \<Rightarrow> lex_case" where
  "mozcpp_kw_1469 eof la = (None,
      if la = CH_UNDERSCORE then ADVANCE 1504 else END_STATE)"

definition mozcpp_kw_1470 :: "bool \<Rightarrow> codepoint \<Rightarrow> lex_case" where
  "mozcpp_kw_1470 eof la = (None,
      if la = CH_T then ADVANCE 1505 else END_STATE)"

definition mozcpp_kw_1471 :: "bool \<Rightarrow> codepoint \<Rightarrow> lex_case" where
  "mozcpp_kw_1471 eof la = (None,
      if la = CH_T then ADVANCE 1506 else END_STATE)"

definition mozcpp_kw_1472 :: "bool \<Rightarrow> codepoint \<Rightarrow> lex_case" where
  "mozcpp_kw_1472 eof la = (None,
      if la = CH_S then ADVANCE 1507 else END_STATE)"

definition mozcpp_kw_1473 :: "bool \<Rightarrow> codepoint \<Rightarrow> lex_case" where
  "mozcpp_kw_1473 eof la = (None,
      if la = CH_R then ADVANCE 1508 else END_STATE)"

definition mozcpp_kw_1474 :: "bool \<Rightarrow> codepoint \<Rightarrow> lex_case" where
  "mozcpp_kw_1474 eof la = (None,
      if la = CH_A then ADVANCE 1509 else END_STATE)"

definition mozcpp_kw_1475 :: "bool \<Rightarrow> codepoint \<Rightarrow> lex_case" where
  "mozcpp_kw_1475 eof la = (None,
      if la = CH_A then ADVANCE 1510 else END_STATE)"

definition mozcpp_kw_1476 :: "bool \<Rightarrow> codepoint \<Rightarrow> lex_case" where
  "mozcpp_kw_1476 eof la = (Some mozcpp_anon_sym_FORWARD_SET_ATTRIBUTE, END_STATE)"

definition mozcpp_kw_1477 :: "bool \<Rightarrow> codepoint \<Rightarrow> lex_case" where
  "mozcpp_kw_1477 eof la = (None,
      if la = CH_N then ADVANCE 1511 else END_STATE)"

definition mozcpp_kw_1478 :: "bool \<Rightarrow> codepoint \<Rightarrow> lex_case" where
  "mozcpp_kw_1478 eof la = (None,
      if la = CH_U then ADVANCE 1512 else END_STATE)"

definition mozcpp_kw_1479 :: "bool \<Rightarrow> codepoint \<Rightarrow> lex_case" where
  "mozcpp_kw_1479 eof la = (None,
      if la = CH_R then ADVANCE 1513 else END_STATE)"

definition mozcpp_kw_1480 :: "bool \<Rightarrow> codepoint \<Rightarrow> lex_case" where
  "mozcpp_kw_1480 eof la = (None,
      if la = CH_J then ADVANCE 1514 else END_STATE)"

definition mozcpp_kw_1481 :: "bool \<Rightarrow> codepoint \<Rightarrow> lex_case" where
  "mozcpp_kw_1481 eof la = (None,
      if la = CH_E then ADVANCE 1515 else END_STATE)"

definition mozcpp_kw_1482 :: "bool \<Rightarrow> codepoint \<Rightarrow> lex_case" where
  "mozcpp_kw_1482 eof la = (None,
      if la = CH_S then ADVANCE 1516 else END_STATE)"

definition mozcpp_kw_1483 :: "bool \<Rightarrow> codepoint \<Rightarrow> lex_case" where
  "mozcpp_kw_1483 eof la = (Some mozcpp_anon_sym_MOZ_HAVE_NEVER_INLINE, END_STATE)"

definition mozcpp_kw_1484 :: "bool \<Rightarrow> codepoint \<Rightarrow> lex_case" where
  "mozcpp_kw_1484 eof la = (Some mozcpp_anon_sym_MOZ_HAVE_NORETURN_PTR, END_STATE)"

definition mozcpp_kw_1485 :: "bool \<Rightarrow> codepoint \<Rightarrow> lex_case" where
  "mozcpp_kw_1485 eof la = (None,
      if la = CH_A then ADVANCE 1517 else END_STATE)"

definition mozcpp_kw_1486 :: "bool \<Rightarrow> codepoint \<Rightarrow> lex_case" where
  "mozcpp_kw_1486 eof la = (None,
      if la = CH_L then ADVANCE 1518 else END_STATE)"

definition mozcpp_kw_1487 :: "bool \<Rightarrow> codepoint \<Rightarrow> lex_case" where
  "mozcpp_kw_1487 eof la = (None,
      if la = CH_R then ADVANCE 1519 else END_STATE)"

definition mozcpp_kw_1488 :: "bool \<Rightarrow> codepoint \<Rightarrow> lex_case" where
  "mozcpp_kw_1488 eof la = (None,
      if la = CH_T then ADVANCE 1520 else END_STATE)"

definition mozcpp_kw_1489 :: "bool \<Rightarrow> codepoint \<Rightarrow> lex_case" where
  "mozcpp_kw_1489 eof la = (Some mozcpp_anon_sym_MOZ_INIT_OUTSIDE_CTOR, END_STATE)"

definition mozcpp_kw_1490 :: "bool \<Rightarrow> codepoint \<Rightarrow> lex_case" where
  "mozcpp_kw_1490 eof la = (None,
      if la = CH_F then ADVANCE 1521 else END_STATE)"

definition mozcpp_kw_1491 :: "bool \<Rightarrow> codepoint \<Rightarrow> lex_case" where
  "mozcpp_kw_1491 eof la = (None,
      if la = CH_S then ADVANCE 1522 else END_STATE)"

definition mozcpp_kw_1492 :: "bool \<Rightarrow> codepoint \<Rightarrow> lex_case" where
  "mozcpp_kw_1492 eof la = (None,
      if la = CH_C then ADVANCE 1523 else END_STATE)"

definition mozcpp_kw_1493 :: "bool \<Rightarrow> codepoint \<Rightarrow> lex_case" where
  "mozcpp_kw_1493 eof la = (None,
      if la = CH_M then ADVANCE 1524 else
      if la = CH_T then ADVANCE 1525 else END_STATE)"

definition mozcpp_kw_1494 :: "bool \<Rightarrow> codepoint \<Rightarrow> lex_case" where
  "mozcpp_kw_1494 eof la = (None,
      if la = CH_Y then ADVANCE 1526 else END_STATE)"

definition mozcpp_kw_1495 :: "bool \<Rightarrow> codepoint \<Rightarrow> lex_case" where
  "mozcpp_kw_1495 eof la = (None,
      if la = CH_G then ADVANCE 1527 else END_STATE)"

definition mozcpp_kw_1496 :: "bool \<Rightarrow> codepoint \<Rightarrow> lex_case" where
  "mozcpp_kw_1496 eof la = (None,
      if la = CH_S then ADVANCE 1528 else END_STATE)"

definition mozcpp_kw_1497 :: "bool \<Rightarrow> codepoint \<Rightarrow> lex_case" where
  "mozcpp_kw_1497 eof la = (None,
      if la = CH_UNDERSCORE then ADVANCE 1529 else END_STATE)"

definition mozcpp_kw_1498 :: "bool \<Rightarrow> codepoint \<Rightarrow> lex_case" where
  "mozcpp_kw_1498 eof la = (None,
      if la = CH_R then ADVANCE 1530 else END_STATE)"

definition mozcpp_kw_1499 :: "bool \<Rightarrow> codepoint \<Rightarrow> lex_case" where
  "mozcpp_kw_1499 eof la = (None,
      if la = CH_M then ADVANCE 1531 else END_STATE)"

definition mozcpp_kw_1500 :: "bool \<Rightarrow> codepoint \<Rightarrow> lex_case" where
  "mozcpp_kw_1500 eof la = (None,
      if la = CH_D then ADVANCE 1532 else END_STATE)"

definition mozcpp_kw_1501 :: "bool \<Rightarrow> codepoint \<Rightarrow> lex_case" where
  "mozcpp_kw_1501 eof la = (None,
      if la = CH_N then ADVANCE 1533 else END_STATE)"

definition mozcpp_kw_1502 :: "bool \<Rightarrow> codepoint \<Rightarrow> lex_case" where
  "mozcpp_kw_1502 eof la = (None,
      if la = CH_D then ADVANCE 1534 else END_STATE)"

definition mozcpp_kw_1503 :: "bool \<Rightarrow> codepoint \<Rightarrow> lex_case" where
  "mozcpp_kw_1503 eof la = (None,
      if la = CH_I then ADVANCE 1535 else END_STATE)"

definition mozcpp_kw_1504 :: "bool \<Rightarrow> codepoint \<Rightarrow> lex_case" where
  "mozcpp_kw_1504 eof la = (None,
      if la = CH_F then ADVANCE 1536 else END_STATE)"

definition mozcpp_kw_1505 :: "bool \<Rightarrow> codepoint \<Rightarrow> lex_case" where
  "mozcpp_kw_1505 eof la = (None,
      if la = CH_R then ADVANCE 1537 else END_STATE)"

definition mozcpp_kw_1506 :: "bool \<Rightarrow> codepoint \<Rightarrow> lex_case" where
  "mozcpp_kw_1506 eof la = (None,
      if la = CH_H then ADVANCE 1538 else END_STATE)"

definition mozcpp_kw_1507 :: "bool \<Rightarrow> codepoint \<Rightarrow> lex_case" where
  "mozcpp_kw_1507 eof la = (None,
      if la = CH_S then ADVANCE 1539 else END_STATE)"

definition mozcpp_kw_1508 :: "bool \<Rightarrow> codepoint \<Rightarrow> lex_case" where
  "mozcpp_kw_1508 eof la = (Some mozcpp_anon_sym_MOZ_TRIVIAL_CTOR_DTOR, END_STATE)"

definition mozcpp_kw_1509 :: "bool \<Rightarrow> codepoint \<Rightarrow> lex_case" where
  "mozcpp_kw_1509 eof la = (None,
      if la = CH_P then ADVANCE 1540 else END_STATE)"

definition mozcpp_kw_1510 :: "bool \<Rightarrow> codepoint \<Rightarrow> lex_case" where
  "mozcpp_kw_1510 eof la = (None,
      if la = CH_P then ADVANCE 1541 else END_STATE)"

definition mozcpp_kw_1511 :: "bool \<Rightarrow> codepoint \<Rightarrow> lex_case" where
  "mozcpp_kw_1511 eof la = (None,
      if la = CH_UNDERSCORE then ADVANCE 1542 else END_STATE)"

definition mozcpp_kw_1512 :: "bool \<Rightarrow> codepoint \<Rightarrow> lex_case" where
  "mozcpp_kw_1512 eof la = (None,
      if la = CH_N then ADVANCE 1543 else END_STATE)"

definition mozcpp_kw_1513 :: "bool \<Rightarrow> codepoint \<Rightarrow> lex_case" where
  "mozcpp_kw_1513 eof la = (None,
      if la = CH_UNDERSCORE then ADVANCE 1544 else END_STATE)"

definition mozcpp_kw_1514 :: "bool \<Rightarrow> codepoint \<Rightarrow> lex_case" where
  "mozcpp_kw_1514 eof la = (None,
      if la = CH_E then ADVANCE 1545 else END_STATE)"

definition mozcpp_kw_1515 :: "bool \<Rightarrow> codepoint \<Rightarrow> lex_case" where
  "mozcpp_kw_1515 eof la = (None,
      if la = CH_T then ADVANCE 1546 else END_STATE)"

definition mozcpp_kw_1516 :: "bool \<Rightarrow> codepoint \<Rightarrow> lex_case" where
  "mozcpp_kw_1516 eof la = (None,
      if la = CH_T then ADVANCE 1547 else END_STATE)"

definition mozcpp_kw_1517 :: "bool \<Rightarrow> codepoint \<Rightarrow> lex_case" where
  "mozcpp_kw_1517 eof la = (None,
      if la = CH_T then ADVANCE 1548 else END_STATE)"

definition mozcpp_kw_1518 :: "bool \<Rightarrow> codepoint \<Rightarrow> lex_case" where
  "mozcpp_kw_1518 eof la = (None,
      if la = CH_O then ADVANCE 1549 else END_STATE)"

definition mozcpp_kw_1519 :: "bool \<Rightarrow> codepoint \<Rightarrow> lex_case" where
  "mozcpp_kw_1519 eof la = (None,
      if la = CH_F then ADVANCE 1550 else END_STATE)"

definition mozcpp_kw_1520 :: "bool \<Rightarrow> codepoint \<Rightarrow> lex_case" where
  "mozcpp_kw_1520 eof la = (None,
      if la = CH_A then ADVANCE 1551 else END_STATE)"

definition mozcpp_kw_1521 :: "bool \<Rightarrow> codepoint \<Rightarrow> lex_case" where
  "mozcpp_kw_1521 eof la = (None,
      if la = CH_C then ADVANCE 1552 else END_STATE)"

definition mozcpp_kw_1522 :: "bool \<Rightarrow> codepoint \<Rightarrow> lex_case" where
  "mozcpp_kw_1522 eof la = (None,
      if la = CH_T then ADVANCE 1553 else END_STATE)"

definition mozcpp_kw_1523 :: "bool \<Rightarrow> codepoint \<Rightarrow> lex_case" where
  "mozcpp_kw_1523 eof la = (None,
      if la = CH_A then ADVANCE 1554 else END_STATE)"

definition mozcpp_kw_1524 :: "bool \<Rightarrow> codepoint \<Rightarrow> lex_case" where
  "mozcpp_kw_1524 eof la = (None,
      if la = CH_E then ADVANCE 1555 else END_STATE)"

definition mozcpp_kw_1525 :: "bool \<Rightarrow> codepoint \<Rightarrow> lex_case" where
  "mozcpp_kw_1525 eof la = (None,
      if la = CH_Y then ADVANCE 1556 else END_STATE)"

definition mozcpp_kw_1526 :: "bool \<Rightarrow> codepoint \<Rightarrow> lex_case" where
  "mozcpp_kw_1526 eof la = (None,
      if la = CH_P then ADVANCE 1557 else END_STATE)"

definition mozcpp_kw_1527 :: "bool \<Rightarrow> codepoint \<Rightarrow> lex_case" where
  "mozcpp_kw_1527 eof la = (Some mozcpp_anon_sym_MOZ_NEVER_INLINE_DEBUG, END_STATE)"

definition mozcpp_kw_1528 :: "bool \<Rightarrow> codepoint \<Rightarrow> lex_case" where
  "mozcpp_kw_1528 eof la = (None,
      if la = CH_S then ADVANCE 1558 else END_STATE)"

definition mozcpp_kw_1529 :: "bool \<Rightarrow> codepoint \<Rightarrow> lex_case" where
  "mozcpp_kw_1529 eof la = (None,
      if la = CH_O then ADVANCE 1559 else END_STATE)"

definition mozcpp_kw_1530 :: "bool \<Rightarrow> codepoint \<Rightarrow> lex_case" where
  "mozcpp_kw_1530 eof la = (None,
      if la = CH_UNDERSCORE then ADVANCE 1560 else END_STATE)"

definition mozcpp_kw_1531 :: "bool \<Rightarrow> codepoint \<Rightarrow> lex_case" where
  "mozcpp_kw_1531 eof la = (None,
      if la = CH_P then ADVANCE 1561 else END_STATE)"

definition mozcpp_kw_1532 :: "bool \<Rightarrow> codepoint \<Rightarrow> lex_case" where
  "mozcpp_kw_1532 eof la = (None,
      if la = CH_UNDERSCORE then ADVANCE 1562 else END_STATE)"

definition mozcpp_kw_1533 :: "bool \<Rightarrow> codepoint \<Rightarrow> lex_case" where
  "mozcpp_kw_1533 eof la = (None,
      if la = CH_E then ADVANCE 1563 else END_STATE)"

definition mozcpp_kw_1534 :: "bool \<Rightarrow> codepoint \<Rightarrow> lex_case" where
  "mozcpp_kw_1534 eof la = (None,
      if la = CH_UNDERSCORE then ADVANCE 1564 else END_STATE)"

definition mozcpp_kw_1535 :: "bool \<Rightarrow> codepoint \<Rightarrow> lex_case" where
  "mozcpp_kw_1535 eof la = (None,
      if la = CH_V then ADVANCE 1565 else END_STATE)"

definition mozcpp_kw_1536 :: "bool \<Rightarrow> codepoint \<Rightarrow> lex_case" where
  "mozcpp_kw_1536 eof la = (None,
      if la = CH_O then ADVANCE 1566 else END_STATE)"

definition mozcpp_kw_1537 :: "bool \<Rightarrow> codepoint \<Rightarrow> lex_case" where
  "mozcpp_kw_1537 eof la = (None,
      if la = CH_I then ADVANCE 1567 else END_STATE)"

definition mozcpp_kw_1538 :: "bool \<Rightarrow> codepoint \<Rightarrow> lex_case" where
  "mozcpp_kw_1538 eof la = (None,
      if la = CH_O then ADVANCE 1568 else END_STATE)"

definition mozcpp_kw_1539 :: "bool \<Rightarrow> codepoint \<Rightarrow> lex_case" where
  "mozcpp_kw_1539 eof la = (Some mozcpp_anon_sym_MOZ_STATIC_LOCAL_CLASS, END_STATE)"

definition mozcpp_kw_1540 :: "bool \<Rightarrow> codepoint \<Rightarrow> lex_case" where
  "mozcpp_kw_1540 eof la = (Some mozcpp_anon_sym_QM_NOTEONLY_TRY_UNWRAP, END_STATE)"

definition mozcpp_kw_1541 :: "bool \<Rightarrow> codepoint \<Rightarrow> lex_case" where
  "mozcpp_kw_1541 eof la = (Some mozcpp_anon_sym_QM_WARNONLY_TRY_UNWRAP, END_STATE)"

definition mozcpp_kw_1542 :: "bool \<Rightarrow> codepoint \<Rightarrow> lex_case" where
  "mozcpp_kw_1542 eof la = (None,
      if la = CH_D then ADVANCE 1569 else END_STATE)"

definition mozcpp_kw_1543 :: "bool \<Rightarrow> codepoint \<Rightarrow> lex_case" where
  "mozcpp_kw_1543 eof la = (None,
      if la = CH_D then ADVANCE 1570 else END_STATE)"

definition mozcpp_kw_1544 :: "bool \<Rightarrow> codepoint \<Rightarrow> lex_case" where
  "mozcpp_kw_1544 eof la = (None,
      if la = CH_D then ADVANCE 1571 else END_STATE)"

definition mozcpp_kw_1545 :: "bool \<Rightarrow> codepoint \<Rightarrow> lex_case" where
  "mozcpp_kw_1545 eof la = (None,
      if la = CH_C then ADVANCE 1572 else END_STATE)"

definition mozcpp_kw_1546 :: "bool \<Rightarrow> codepoint \<Rightarrow> lex_case" where
  "mozcpp_kw_1546 eof la = (None,
      if la = CH_U then ADVANCE 1573 else END_STATE)"

definition mozcpp_kw_1547 :: "bool \<Rightarrow> codepoint \<Rightarrow> lex_case" where
  "mozcpp_kw_1547 eof la = (Some mozcpp_anon_sym_MOZ_HAVE_ASAN_BLACKLIST, END_STATE)"

definition mozcpp_kw_1548 :: "bool \<Rightarrow> codepoint \<Rightarrow> lex_case" where
  "mozcpp_kw_1548 eof la = (None,
      if la = CH_T then ADVANCE 1574 else END_STATE)"

definition mozcpp_kw_1549 :: "bool \<Rightarrow> codepoint \<Rightarrow> lex_case" where
  "mozcpp_kw_1549 eof la = (None,
      if la = CH_W then ADVANCE 1575 else END_STATE)"

definition mozcpp_kw_1550 :: "bool \<Rightarrow> codepoint \<Rightarrow> lex_case" where
  "mozcpp_kw_1550 eof la = (None,
      if la = CH_L then ADVANCE 1576 else END_STATE)"

definition mozcpp_kw_1551 :: "bool \<Rightarrow> codepoint \<Rightarrow> lex_case" where
  "mozcpp_kw_1551 eof la = (None,
      if la = CH_T then ADVANCE 1577 else END_STATE)"

definition mozcpp_kw_1552 :: "bool \<Rightarrow> codepoint \<Rightarrow> lex_case" where
  "mozcpp_kw_1552 eof la = (None,
      if la = CH_O then ADVANCE 1578 else END_STATE)"

definition mozcpp_kw_1553 :: "bool \<Rightarrow> codepoint \<Rightarrow> lex_case" where
  "mozcpp_kw_1553 eof la = (None,
      if la = CH_UNDERSCORE then ADVANCE 1579 else END_STATE)"

definition mozcpp_kw_1554 :: "bool \<Rightarrow> codepoint \<Rightarrow> lex_case" where
  "mozcpp_kw_1554 eof la = (None,
      if la = CH_L then ADVANCE 1580 else END_STATE)"

definition mozcpp_kw_1555 :: "bool \<Rightarrow> codepoint \<Rightarrow> lex_case" where
  "mozcpp_kw_1555 eof la = (None,
      if la = CH_M then ADVANCE 1581 else END_STATE)"

definition mozcpp_kw_1556 :: "bool \<Rightarrow> codepoint \<Rightarrow> lex_case" where
  "mozcpp_kw_1556 eof la = (None,
      if la = CH_P then ADVANCE 1582 else END_STATE)"

definition mozcpp_kw_1557 :: "bool \<Rightarrow> codepoint \<Rightarrow> lex_case" where
  "mozcpp_kw_1557 eof la = (None,
      if la = CH_E then ADVANCE 1583 else END_STATE)"

definition mozcpp_kw_1558 :: "bool \<Rightarrow> codepoint \<Rightarrow> lex_case" where
  "mozcpp_kw_1558 eof la = (Some mozcpp_anon_sym_MOZ_NON_TEMPORARY_CLASS, END_STATE)"

definition mozcpp_kw_1559 :: "bool \<Rightarrow> codepoint \<Rightarrow> lex_case" where
  "mozcpp_kw_1559 eof la = (None,
      if la = CH_N then ADVANCE 1584 else END_STATE)"

definition mozcpp_kw_1560 :: "bool \<Rightarrow> codepoint \<Rightarrow> lex_case" where
  "mozcpp_kw_1560 eof la = (None,
      if la = CH_I then ADVANCE 1585 else END_STATE)"

definition mozcpp_kw_1561 :: "bool \<Rightarrow> codepoint \<Rightarrow> lex_case" where
  "mozcpp_kw_1561 eof la = (None,
      if la = CH_O then ADVANCE 1586 else END_STATE)"

definition mozcpp_kw_1562 :: "bool \<Rightarrow> codepoint \<Rightarrow> lex_case" where
  "mozcpp_kw_1562 eof la = (None,
      if la = CH_O then ADVANCE 1587 else END_STATE)"

definition mozcpp_kw_1563 :: "bool \<Rightarrow> codepoint \<Rightarrow> lex_case" where
  "mozcpp_kw_1563 eof la = (None,
      if la = CH_D then ADVANCE 1588 else END_STATE)"

definition mozcpp_kw_1564 :: "bool \<Rightarrow> codepoint \<Rightarrow> lex_case" where
  "mozcpp_kw_1564 eof la = (None,
      if la = CH_S then ADVANCE 1589 else END_STATE)"

definition mozcpp_kw_1565 :: "bool \<Rightarrow> codepoint \<Rightarrow> lex_case" where
  "mozcpp_kw_1565 eof la = (None,
      if la = CH_I then ADVANCE 1590 else END_STATE)"

definition mozcpp_kw_1566 :: "bool \<Rightarrow> codepoint \<Rightarrow> lex_case" where
  "mozcpp_kw_1566 eof la = (None,
      if la = CH_R then ADVANCE 1591 else END_STATE)"

definition mozcpp_kw_1567 :: "bool \<Rightarrow> codepoint \<Rightarrow> lex_case" where
  "mozcpp_kw_1567 eof la = (None,
      if la = CH_V then ADVANCE 1592 else END_STATE)"

definition mozcpp_kw_1568 :: "bool \<Rightarrow> codepoint \<Rightarrow> lex_case" where
  "mozcpp_kw_1568 eof la = (None,
      if la = CH_D then ADVANCE 1593 else END_STATE)"

definition mozcpp_kw_1569 :: "bool \<Rightarrow> codepoint \<Rightarrow> lex_case" where
  "mozcpp_kw_1569 eof la = (None,
      if la = CH_E then ADVANCE 1594 else END_STATE)"

definition mozcpp_kw_1570 :: "bool \<Rightarrow> codepoint \<Rightarrow> lex_case" where
  "mozcpp_kw_1570 eof la = (None,
      if la = CH_A then ADVANCE 1595 else END_STATE)"

definition mozcpp_kw_1571 :: "bool \<Rightarrow> codepoint \<Rightarrow> lex_case" where
  "mozcpp_kw_1571 eof la = (None,
      if la = CH_E then ADVANCE 1596 else END_STATE)"

definition mozcpp_kw_1572 :: "bool \<Rightarrow> codepoint \<Rightarrow> lex_case" where
  "mozcpp_kw_1572 eof la = (None,
      if la = CH_T then ADVANCE 1597 else END_STATE)"

definition mozcpp_kw_1573 :: "bool \<Rightarrow> codepoint \<Rightarrow> lex_case" where
  "mozcpp_kw_1573 eof la = (None,
      if la = CH_R then ADVANCE 1598 else END_STATE)"

definition mozcpp_kw_1574 :: "bool \<Rightarrow> codepoint \<Rightarrow> lex_case" where
  "mozcpp_kw_1574 eof la = (None,
      if la = CH_R then ADVANCE 1599 else END_STATE)"

definition mozcpp_kw_1575 :: "bool \<Rightarrow> codepoint \<Rightarrow> lex_case" where
  "mozcpp_kw_1575 eof la = (None,
      if la = CH_UNDERSCORE then ADVANCE 1600 else END_STATE)"

definition mozcpp_kw_1576 :: "bool \<Rightarrow> codepoint \<Rightarrow> lex_case" where
  "mozcpp_kw_1576 eof la = (None,
      if la = CH_O then ADVANCE 1601 else END_STATE)"

definition mozcpp_kw_1577 :: "bool \<Rightarrow> codepoint \<Rightarrow> lex_case" where
  "mozcpp_kw_1577 eof la = (None,
      if la = CH_I then ADVANCE 1602 else END_STATE)"

definition mozcpp_kw_1578 :: "bool \<Rightarrow> codepoint \<Rightarrow> lex_case" where
  "mozcpp_kw_1578 eof la = (None,
      if la = CH_U then ADVANCE 1603 else END_STATE)"

definition mozcpp_kw_1579 :: "bool \<Rightarrow> codepoint \<Rightarrow> lex_case" where
  "mozcpp_kw_1579 eof la = (None,
      if la = CH_R then ADVANCE 1604 else END_STATE)"

definition mozcpp_kw_1580 :: "bool \<Rightarrow> codepoint \<Rightarrow> lex_case" where
  "mozcpp_kw_1580 eof la = (None,
      if la = CH_L then ADVANCE 1605 else END_STATE)"

definition mozcpp_kw_1581 :: "bool \<Rightarrow> codepoint \<Rightarrow> lex_case" where
  "mozcpp_kw_1581 eof la = (None,
      if la = CH_B then ADVANCE 1606 else END_STATE)"

definition mozcpp_kw_1582 :: "bool \<Rightarrow> codepoint \<Rightarrow> lex_case" where
  "mozcpp_kw_1582 eof la = (None,
      if la = CH_E then ADVANCE 1607 else END_STATE)"

definition mozcpp_kw_1583 :: "bool \<Rightarrow> codepoint \<Rightarrow> lex_case" where
  "mozcpp_kw_1583 eof la = (Some mozcpp_anon_sym_MOZ_NEEDS_NO_VTABLE_TYPE, END_STATE)"

definition mozcpp_kw_1584 :: "bool \<Rightarrow> codepoint \<Rightarrow> lex_case" where
  "mozcpp_kw_1584 eof la = (None,
      if la = CH_UNDERSCORE then ADVANCE 1608 else END_STATE)"

definition mozcpp_kw_1585 :: "bool \<Rightarrow> codepoint \<Rightarrow> lex_case" where
  "mozcpp_kw_1585 eof la = (None,
      if la = CH_N then ADVANCE 1609 else END_STATE)"

definition mozcpp_kw_1586 :: "bool \<Rightarrow> codepoint \<Rightarrow> lex_case" where
  "mozcpp_kw_1586 eof la = (None,
      if la = CH_R then ADVANCE 1610 else END_STATE)"

definition mozcpp_kw_1587 :: "bool \<Rightarrow> codepoint \<Rightarrow> lex_case" where
  "mozcpp_kw_1587 eof la = (None,
      if la = CH_V then ADVANCE 1611 else END_STATE)"

definition mozcpp_kw_1588 :: "bool \<Rightarrow> codepoint \<Rightarrow> lex_case" where
  "mozcpp_kw_1588 eof la = (None,
      if la = CH_UNDERSCORE then ADVANCE 1612 else END_STATE)"

definition mozcpp_kw_1589 :: "bool \<Rightarrow> codepoint \<Rightarrow> lex_case" where
  "mozcpp_kw_1589 eof la = (None,
      if la = CH_T then ADVANCE 1613 else END_STATE)"

definition mozcpp_kw_1590 :: "bool \<Rightarrow> codepoint \<Rightarrow> lex_case" where
  "mozcpp_kw_1590 eof la = (None,
      if la = CH_A then ADVANCE 1614 else END_STATE)"

definition mozcpp_kw_1591 :: "bool \<Rightarrow> codepoint \<Rightarrow> lex_case" where
  "mozcpp_kw_1591 eof la = (None,
      if la = CH_UNDERSCORE then ADVANCE 1615 else END_STATE)"

definition mozcpp_kw_1592 :: "bool \<Rightarrow> codepoint \<Rightarrow> lex_case" where
  "mozcpp_kw_1592 eof la = (None,
      if la = CH_I then ADVANCE 1616 else END_STATE)"

definition mozcpp_kw_1593 :: "bool \<Rightarrow> codepoint \<Rightarrow> lex_case" where
  "mozcpp_kw_1593 eof la = (Some mozcpp_anon_sym_MOZ_REQUIRED_BASE_METHOD, END_STATE)"

definition mozcpp_kw_1594 :: "bool \<Rightarrow> codepoint \<Rightarrow> lex_case" where
  "mozcpp_kw_1594 eof la = (None,
      if la = CH_B then ADVANCE 1617 else END_STATE)"

definition mozcpp_kw_1595 :: "bool \<Rightarrow> codepoint \<Rightarrow> lex_case" where
  "mozcpp_kw_1595 eof la = (None,
      if la = CH_R then ADVANCE 1618 else END_STATE)"

definition mozcpp_kw_1596 :: "bool \<Rightarrow> codepoint \<Rightarrow> lex_case" where
  "mozcpp_kw_1596 eof la = (None,
      if la = CH_F then ADVANCE 1619 else END_STATE)"

definition mozcpp_kw_1597 :: "bool \<Rightarrow> codepoint \<Rightarrow> lex_case" where
  "mozcpp_kw_1597 eof la = (None,
      if la = CH_UNDERSCORE then ADVANCE 1620 else END_STATE)"

definition mozcpp_kw_1598 :: "bool \<Rightarrow> codepoint \<Rightarrow> lex_case" where
  "mozcpp_kw_1598 eof la = (None,
      if la = CH_N then ADVANCE 1621 else END_STATE)"

definition mozcpp_kw_1599 :: "bool \<Rightarrow> codepoint \<Rightarrow> lex_case" where
  "mozcpp_kw_1599 eof la = (Some mozcpp_anon_sym_MOZ_HAVE_NO_SANITIZE_ATTR, END_STATE)"

definition mozcpp_kw_1600 :: "bool \<Rightarrow> codepoint \<Rightarrow> lex_case" where
  "mozcpp_kw_1600 eof la = (None,
      if la = CH_S then ADVANCE 1622 else END_STATE)"

definition mozcpp_kw_1601 :: "bool \<Rightarrow> codepoint \<Rightarrow> lex_case" where
  "mozcpp_kw_1601 eof la = (None,
      if la = CH_W then ADVANCE 1623 else END_STATE)"

definition mozcpp_kw_1602 :: "bool \<Rightarrow> codepoint \<Rightarrow> lex_case" where
  "mozcpp_kw_1602 eof la = (None,
      if la = CH_O then ADVANCE 1624 else END_STATE)"

definition mozcpp_kw_1603 :: "bool \<Rightarrow> codepoint \<Rightarrow> lex_case" where
  "mozcpp_kw_1603 eof la = (None,
      if la = CH_N then ADVANCE 1625 else END_STATE)"

definition mozcpp_kw_1604 :: "bool \<Rightarrow> codepoint \<Rightarrow> lex_case" where
  "mozcpp_kw_1604 eof la = (None,
      if la = CH_E then ADVANCE 1626 else END_STATE)"

definition mozcpp_kw_1605 :: "bool \<Rightarrow> codepoint \<Rightarrow> lex_case" where
  "mozcpp_kw_1605 eof la = (None,
      if la = CH_E then ADVANCE 1627 else END_STATE)"

definition mozcpp_kw_1606 :: "bool \<Rightarrow> codepoint \<Rightarrow> lex_case" where
  "mozcpp_kw_1606 eof la = (None,
      if la = CH_E then ADVANCE 1628 else END_STATE)"

definition mozcpp_kw_1607 :: "bool \<Rightarrow> codepoint \<Rightarrow> lex_case" where
  "mozcpp_kw_1607 eof la = (Some mozcpp_anon_sym_MOZ_NEEDS_MEMMOVABLE_TYPE, END_STATE)"

definition mozcpp_kw_1608 :: "bool \<Rightarrow> codepoint \<Rightarrow> lex_case" where
  "mozcpp_kw_1608 eof la = (None,
      if la = CH_R then ADVANCE 1629 else END_STATE)"

definition mozcpp_kw_1609 :: "bool \<Rightarrow> codepoint \<Rightarrow> lex_case" where
  "mozcpp_kw_1609 eof la = (None,
      if la = CH_UNDERSCORE then ADVANCE 1630 else END_STATE)"

definition mozcpp_kw_1610 :: "bool \<Rightarrow> codepoint \<Rightarrow> lex_case" where
  "mozcpp_kw_1610 eof la = (None,
      if la = CH_A then ADVANCE 1631 else END_STATE)"

definition mozcpp_kw_1611 :: "bool \<Rightarrow> codepoint \<Rightarrow> lex_case" where
  "mozcpp_kw_1611 eof la = (None,
      if la = CH_E then ADVANCE 1632 else END_STATE)"

definition mozcpp_kw_1612 :: "bool \<Rightarrow> codepoint \<Rightarrow> lex_case" where
  "mozcpp_kw_1612 eof la = (None,
      if la = CH_O then ADVANCE 1633 else END_STATE)"

definition mozcpp_kw_1613 :: "bool \<Rightarrow> codepoint \<Rightarrow> lex_case" where
  "mozcpp_kw_1613 eof la = (None,
      if la = CH_A then ADVANCE 1634 else END_STATE)"

definition mozcpp_kw_1614 :: "bool \<Rightarrow> codepoint \<Rightarrow> lex_case" where
  "mozcpp_kw_1614 eof la = (None,
      if la = CH_L then ADVANCE 1635 else END_STATE)"

definition mozcpp_kw_1615 :: "bool \<Rightarrow> codepoint \<Rightarrow> lex_case" where
  "mozcpp_kw_1615 eof la = (None,
      if la = CH_S then ADVANCE 1636 else END_STATE)"

definition mozcpp_kw_1616 :: "bool \<Rightarrow> codepoint \<Rightarrow> lex_case" where
  "mozcpp_kw_1616 eof la = (None,
      if la = CH_A then ADVANCE 1637 else END_STATE)"

definition mozcpp_kw_1617 :: "bool \<Rightarrow> codepoint \<Rightarrow> lex_case" where
  "mozcpp_kw_1617 eof la = (None,
      if la = CH_U then ADVANCE 1638 else END_STATE)"

definition mozcpp_kw_1618 :: "bool \<Rightarrow> codepoint \<Rightarrow> lex_case" where
  "mozcpp_kw_1618 eof la = (None,
      if la = CH_Y then ADVANCE 1639 else END_STATE)"

definition mozcpp_kw_1619 :: "bool \<Rightarrow> codepoint \<Rightarrow> lex_case" where
  "mozcpp_kw_1619 eof la = (None,
      if la = CH_I then ADVANCE 1640 else END_STATE)"

definition mozcpp_kw_1620 :: "bool \<Rightarrow> codepoint \<Rightarrow> lex_case" where
  "mozcpp_kw_1620 eof la = (None,
      if la = CH_N then ADVANCE 1641 else END_STATE)"

definition mozcpp_kw_1621 :: "bool \<Rightarrow> codepoint \<Rightarrow> lex_case" where
  "mozcpp_kw_1621 eof la = (Some mozcpp_anon_sym_MOZ_HAVE_ANALYZER_NORETURN, END_STATE)"

definition mozcpp_kw_1622 :: "bool \<Rightarrow> codepoint \<Rightarrow> lex_case" where
  "mozcpp_kw_1622 eof la = (None,
      if la = CH_A then ADVANCE 1642 else END_STATE)"

definition mozcpp_kw_1623 :: "bool \<Rightarrow> codepoint \<Rightarrow> lex_case" where
  "mozcpp_kw_1623 eof la = (None,
      if la = CH_UNDERSCORE then ADVANCE 1643 else END_STATE)"

definition mozcpp_kw_1624 :: "bool \<Rightarrow> codepoint \<Rightarrow> lex_case" where
  "mozcpp_kw_1624 eof la = (None,
      if la = CH_N then ADVANCE 1644 else END_STATE)"

definition mozcpp_kw_1625 :: "bool \<Rightarrow> codepoint \<Rightarrow> lex_case" where
  "mozcpp_kw_1625 eof la = (None,
      if la = CH_T then ADVANCE 1645 else END_STATE)"

definition mozcpp_kw_1626 :: "bool \<Rightarrow> codepoint \<Rightarrow> lex_case" where
  "mozcpp_kw_1626 eof la = (None,
      if la = CH_T then ADVANCE 1646 else END_STATE)"

definition mozcpp_kw_1627 :: "bool \<Rightarrow> codepoint \<Rightarrow> lex_case" where
  "mozcpp_kw_1627 eof la = (None,
      if la = CH_R then ADVANCE 1647 else END_STATE)"

definition mozcpp_kw_1628 :: "bool \<Rightarrow> codepoint \<Rightarrow> lex_case" where
  "mozcpp_kw_1628 eof la = (None,
      if la = CH_R then ADVANCE 1648 else END_STATE)"

definition mozcpp_kw_1629 :: "bool \<Rightarrow> codepoint \<Rightarrow> lex_case" where
  "mozcpp_kw_1629 eof la = (None,
      if la = CH_E then ADVANCE 1649 else END_STATE)"

definition mozcpp_kw_1630 :: "bool \<Rightarrow> codepoint \<Rightarrow> lex_case" where
  "mozcpp_kw_1630 eof la = (None,
      if la = CH_A then ADVANCE 1650 else END_STATE)"

definition mozcpp_kw_1631 :: "bool \<Rightarrow> codepoint \<Rightarrow> lex_case" where
  "mozcpp_kw_1631 eof la = (None,
      if la = CH_R then ADVANCE 1651 else END_STATE)"

definition mozcpp_kw_1632 :: "bool \<Rightarrow> codepoint \<Rightarrow> lex_case" where
  "mozcpp_kw_1632 eof la = (None,
      if la = CH_R then ADVANCE 1652 else END_STATE)"

definition mozcpp_kw_1633 :: "bool \<Rightarrow> codepoint \<Rightarrow> lex_case" where
  "mozcpp_kw_1633 eof la = (None,
      if la = CH_V then ADVANCE 1653 else END_STATE)"

definition mozcpp_kw_1634 :: "bool \<Rightarrow> codepoint \<Rightarrow> lex_case" where
  "mozcpp_kw_1634 eof la = (None,
      if la = CH_T then ADVANCE 1654 else END_STATE)"

definition mozcpp_kw_1635 :: "bool \<Rightarrow> codepoint \<Rightarrow> lex_case" where
  "mozcpp_kw_1635 eof la = (None,
      if la = CH_UNDERSCORE then ADVANCE 1655 else END_STATE)"

definition mozcpp_kw_1636 :: "bool \<Rightarrow> codepoint \<Rightarrow> lex_case" where
  "mozcpp_kw_1636 eof la = (None,
      if la = CH_T then ADVANCE 1656 else END_STATE)"

definition mozcpp_kw_1637 :: "bool \<Rightarrow> codepoint \<Rightarrow> lex_case" where
  "mozcpp_kw_1637 eof la = (None,
      if la = CH_L then ADVANCE 1657 else END_STATE)"

definition mozcpp_kw_1638 :: "bool \<Rightarrow> codepoint \<Rightarrow> lex_case" where
  "mozcpp_kw_1638 eof la = (None,
      if la = CH_G then ADVANCE 1658 else END_STATE)"

definition mozcpp_kw_1639 :: "bool \<Rightarrow> codepoint \<Rightarrow> lex_case" where
  "mozcpp_kw_1639 eof la = (Some mozcpp_anon_sym_MOZ_CAN_RUN_SCRIPT_BOUNDARY, END_STATE)"

definition mozcpp_kw_1640 :: "bool \<Rightarrow> codepoint \<Rightarrow> lex_case" where
  "mozcpp_kw_1640 eof la = (None,
      if la = CH_N then ADVANCE 1659 else END_STATE)"

definition mozcpp_kw_1641 :: "bool \<Rightarrow> codepoint \<Rightarrow> lex_case" where
  "mozcpp_kw_1641 eof la = (None,
      if la = CH_O then ADVANCE 1660 else END_STATE)"

definition mozcpp_kw_1642 :: "bool \<Rightarrow> codepoint \<Rightarrow> lex_case" where
  "mozcpp_kw_1642 eof la = (None,
      if la = CH_N then ADVANCE 1661 else END_STATE)"

definition mozcpp_kw_1643 :: "bool \<Rightarrow> codepoint \<Rightarrow> lex_case" where
  "mozcpp_kw_1643 eof la = (None,
      if la = CH_S then ADVANCE 1662 else END_STATE)"

definition mozcpp_kw_1644 :: "bool \<Rightarrow> codepoint \<Rightarrow> lex_case" where
  "mozcpp_kw_1644 eof la = (None,
      if la = CH_S then ADVANCE 1663 else END_STATE)"

definition mozcpp_kw_1645 :: "bool \<Rightarrow> codepoint \<Rightarrow> lex_case" where
  "mozcpp_kw_1645 eof la = (None,
      if la = CH_E then ADVANCE 1664 else END_STATE)"

definition mozcpp_kw_1646 :: "bool \<Rightarrow> codepoint \<Rightarrow> lex_case" where
  "mozcpp_kw_1646 eof la = (None,
      if la = CH_U then ADVANCE 1665 else END_STATE)"

definition mozcpp_kw_1647 :: "bool \<Rightarrow> codepoint \<Rightarrow> lex_case" where
  "mozcpp_kw_1647 eof la = (None,
      if la = CH_UNDERSCORE then ADVANCE 1666 else END_STATE)"

definition mozcpp_kw_1648 :: "bool \<Rightarrow> codepoint \<Rightarrow> lex_case" where
  "mozcpp_kw_1648 eof la = (None,
      if la = CH_S then ADVANCE 1667 else END_STATE)"

definition mozcpp_kw_1649 :: "bool \<Rightarrow> codepoint \<Rightarrow> lex_case" where
  "mozcpp_kw_1649 eof la = (None,
      if la = CH_T then ADVANCE 1668 else END_STATE)"

definition mozcpp_kw_1650 :: "bool \<Rightarrow> codepoint \<Rightarrow> lex_case" where
  "mozcpp_kw_1650 eof la = (None,
      if la = CH_R then ADVANCE 1669 else END_STATE)"

definition mozcpp_kw_1651 :: "bool \<Rightarrow> codepoint \<Rightarrow> lex_case" where
  "mozcpp_kw_1651 eof la = (None,
      if la = CH_I then ADVANCE 1670 else END_STATE)"

definition mozcpp_kw_1652 :: "bool \<Rightarrow> codepoint \<Rightarrow> lex_case" where
  "mozcpp_kw_1652 eof la = (None,
      if la = CH_F then ADVANCE 1671 else END_STATE)"

definition mozcpp_kw_1653 :: "bool \<Rightarrow> codepoint \<Rightarrow> lex_case" where
  "mozcpp_kw_1653 eof la = (None,
      if la = CH_E then ADVANCE 1672 else END_STATE)"

definition mozcpp_kw_1654 :: "bool \<Rightarrow> codepoint \<Rightarrow> lex_case" where
  "mozcpp_kw_1654 eof la = (None,
      if la = CH_I then ADVANCE 1673 else END_STATE)"

definition mozcpp_kw_1655 :: "bool \<Rightarrow> codepoint \<Rightarrow> lex_case" where
  "mozcpp_kw_1655 eof la = (None,
      if la = CH_U then ADVANCE 1674 else END_STATE)"

definition mozcpp_kw_1656 :: "bool \<Rightarrow> codepoint \<Rightarrow> lex_case" where
  "mozcpp_kw_1656 eof la = (None,
      if la = CH_A then ADVANCE 1675 else END_STATE)"

definition mozcpp_kw_1657 :: "bool \<Rightarrow> codepoint \<Rightarrow> lex_case" where
  "mozcpp_kw_1657 eof la = (None,
      if la = CH_UNDERSCORE then ADVANCE 1676 else END_STATE)"

definition mozcpp_kw_1658 :: "bool \<Rightarrow> codepoint \<Rightarrow> lex_case" where
  "mozcpp_kw_1658 eof la = (Some mozcpp_anon_sym_MOZ_ALWAYS_INLINE_EVEN_DEBUG, END_STATE)"

definition mozcpp_kw_1659 :: "bool \<Rightarrow> codepoint \<Rightarrow> lex_case" where
  "mozcpp_kw_1659 eof la = (None,
      if la = CH_I then ADVANCE 1677 else END_STATE)"

definition mozcpp_kw_1660 :: "bool \<Rightarrow> codepoint \<Rightarrow> lex_case" where
  "mozcpp_kw_1660 eof la = (None,
      if la = CH_T then ADVANCE 1678 else END_STATE)"

definition mozcpp_kw_1661 :: "bool \<Rightarrow> codepoint \<Rightarrow> lex_case" where
  "mozcpp_kw_1661 eof la = (None,
      if la = CH_I then ADVANCE 1679 else END_STATE)"

definition mozcpp_kw_1662 :: "bool \<Rightarrow> codepoint \<Rightarrow> lex_case" where
  "mozcpp_kw_1662 eof la = (None,
      if la = CH_A then ADVANCE 1680 else END_STATE)"

definition mozcpp_kw_1663 :: "bool \<Rightarrow> codepoint \<Rightarrow> lex_case" where
  "mozcpp_kw_1663 eof la = (None,
      if la = CH_UNDERSCORE then ADVANCE 1681 else END_STATE)"

definition mozcpp_kw_1664 :: "bool \<Rightarrow> codepoint \<Rightarrow> lex_case" where
  "mozcpp_kw_1664 eof la = (None,
      if la = CH_D then ADVANCE 1682 else END_STATE)"

definition mozcpp_kw_1665 :: "bool \<Rightarrow> codepoint \<Rightarrow> lex_case" where
  "mozcpp_kw_1665 eof la = (None,
      if la = CH_R then ADVANCE 1683 else END_STATE)"

definition mozcpp_kw_1666 :: "bool \<Rightarrow> codepoint \<Rightarrow> lex_case" where
  "mozcpp_kw_1666 eof la = (None,
      if la = CH_I then ADVANCE 1684 else END_STATE)"

definition mozcpp_kw_1667 :: "bool \<Rightarrow> codepoint \<Rightarrow> lex_case" where
  "mozcpp_kw_1667 eof la = (Some mozcpp_anon_sym_MOZ_NEEDS_MEMMOVABLE_MEMBERS, END_STATE)"

definition mozcpp_kw_1668 :: "bool \<Rightarrow> codepoint \<Rightarrow> lex_case" where
  "mozcpp_kw_1668 eof la = (None,
      if la = CH_U then ADVANCE 1685 else END_STATE)"

definition mozcpp_kw_1669 :: "bool \<Rightarrow> codepoint \<Rightarrow> lex_case" where
  "mozcpp_kw_1669 eof la = (None,
      if la = CH_G then ADVANCE 1686 else END_STATE)"

definition mozcpp_kw_1670 :: "bool \<Rightarrow> codepoint \<Rightarrow> lex_case" where
  "mozcpp_kw_1670 eof la = (None,
      if la = CH_E then ADVANCE 1687 else END_STATE)"

definition mozcpp_kw_1671 :: "bool \<Rightarrow> codepoint \<Rightarrow> lex_case" where
  "mozcpp_kw_1671 eof la = (None,
      if la = CH_L then ADVANCE 1688 else END_STATE)"

definition mozcpp_kw_1672 :: "bool \<Rightarrow> codepoint \<Rightarrow> lex_case" where
  "mozcpp_kw_1672 eof la = (None,
      if la = CH_R then ADVANCE 1689 else END_STATE)"

definition mozcpp_kw_1673 :: "bool \<Rightarrow> codepoint \<Rightarrow> lex_case" where
  "mozcpp_kw_1673 eof la = (None,
      if la = CH_C then ADVANCE 1690 else END_STATE)"

definition mozcpp_kw_1674 :: "bool \<Rightarrow> codepoint \<Rightarrow> lex_case" where
  "mozcpp_kw_1674 eof la = (None,
      if la = CH_N then ADVANCE 1691 else END_STATE)"

definition mozcpp_kw_1675 :: "bool \<Rightarrow> codepoint \<Rightarrow> lex_case" where
  "mozcpp_kw_1675 eof la = (None,
      if la = CH_T then ADVANCE 1692 else END_STATE)"

definition mozcpp_kw_1676 :: "bool \<Rightarrow> codepoint \<Rightarrow> lex_case" where
  "mozcpp_kw_1676 eof la = (None,
      if la = CH_U then ADVANCE 1693 else END_STATE)"

definition mozcpp_kw_1677 :: "bool \<Rightarrow> codepoint \<Rightarrow> lex_case" where
  "mozcpp_kw_1677 eof la = (None,
      if la = CH_T then ADVANCE 1694 else END_STATE)"

definition mozcpp_kw_1678 :: "bool \<Rightarrow> codepoint \<Rightarrow> lex_case" where
  "mozcpp_kw_1678 eof la = (None,
      if la = CH_I then ADVANCE 1695 else END_STATE)"

definition mozcpp_kw_1679 :: "bool \<Rightarrow> codepoint \<Rightarrow> lex_case" where
  "mozcpp_kw_1679 eof la = (None,
      if la = CH_T then ADVANCE 1696 else END_STATE)"

definition mozcpp_kw_1680 :: "bool \<Rightarrow> codepoint \<Rightarrow> lex_case" where
  "mozcpp_kw_1680 eof la = (None,
      if la = CH_N then ADVANCE 1697 else END_STATE)"

definition mozcpp_kw_1681 :: "bool \<Rightarrow> codepoint \<Rightarrow> lex_case" where
  "mozcpp_kw_1681 eof la = (None,
      if la = CH_F then ADVANCE 1698 else END_STATE)"

definition mozcpp_kw_1682 :: "bool \<Rightarrow> codepoint \<Rightarrow> lex_case" where
  "mozcpp_kw_1682 eof la = (Some mozcpp_anon_sym_MOZ_IS_SMARTPTR_TO_REFCOUNTED, END_STATE)"

definition mozcpp_kw_1683 :: "bool \<Rightarrow> codepoint \<Rightarrow> lex_case" where
  "mozcpp_kw_1683 eof la = (None,
      if la = CH_N then ADVANCE 1699 else END_STATE)"

definition mozcpp_kw_1684 :: "bool \<Rightarrow> codepoint \<Rightarrow> lex_case" where
  "mozcpp_kw_1684 eof la = (None,
      if la = CH_F then ADVANCE 1700 else END_STATE)"

definition mozcpp_kw_1685 :: "bool \<Rightarrow> codepoint \<Rightarrow> lex_case" where
  "mozcpp_kw_1685 eof la = (None,
      if la = CH_R then ADVANCE 1701 else END_STATE)"

definition mozcpp_kw_1686 :: "bool \<Rightarrow> codepoint \<Rightarrow> lex_case" where
  "mozcpp_kw_1686 eof la = (None,
      if la = CH_U then ADVANCE 1702 else END_STATE)"

definition mozcpp_kw_1687 :: "bool \<Rightarrow> codepoint \<Rightarrow> lex_case" where
  "mozcpp_kw_1687 eof la = (None,
      if la = CH_S then ADVANCE 1703 else END_STATE)"

definition mozcpp_kw_1688 :: "bool \<Rightarrow> codepoint \<Rightarrow> lex_case" where
  "mozcpp_kw_1688 eof la = (None,
      if la = CH_O then ADVANCE 1704 else END_STATE)"

definition mozcpp_kw_1689 :: "bool \<Rightarrow> codepoint \<Rightarrow> lex_case" where
  "mozcpp_kw_1689 eof la = (None,
      if la = CH_F then ADVANCE 1705 else END_STATE)"

definition mozcpp_kw_1690 :: "bool \<Rightarrow> codepoint \<Rightarrow> lex_case" where
  "mozcpp_kw_1690 eof la = (None,
      if la = CH_UNDERSCORE then ADVANCE 1706 else END_STATE)"

definition mozcpp_kw_1691 :: "bool \<Rightarrow> codepoint \<Rightarrow> lex_case" where
  "mozcpp_kw_1691 eof la = (None,
      if la = CH_I then ADVANCE 1707 else END_STATE)"

definition mozcpp_kw_1692 :: "bool \<Rightarrow> codepoint \<Rightarrow> lex_case" where
  "mozcpp_kw_1692 eof la = (None,
      if la = CH_I then ADVANCE 1708 else END_STATE)"

definition mozcpp_kw_1693 :: "bool \<Rightarrow> codepoint \<Rightarrow> lex_case" where
  "mozcpp_kw_1693 eof la = (None,
      if la = CH_N then ADVANCE 1709 else END_STATE)"

definition mozcpp_kw_1694 :: "bool \<Rightarrow> codepoint \<Rightarrow> lex_case" where
  "mozcpp_kw_1694 eof la = (None,
      if la = CH_I then ADVANCE 1710 else END_STATE)"

definition mozcpp_kw_1695 :: "bool \<Rightarrow> codepoint \<Rightarrow> lex_case" where
  "mozcpp_kw_1695 eof la = (None,
      if la = CH_F then ADVANCE 1711 else END_STATE)"

definition mozcpp_kw_1696 :: "bool \<Rightarrow> codepoint \<Rightarrow> lex_case" where
  "mozcpp_kw_1696 eof la = (None,
      if la = CH_I then ADVANCE 1712 else END_STATE)"

definition mozcpp_kw_1697 :: "bool \<Rightarrow> codepoint \<Rightarrow> lex_case" where
  "mozcpp_kw_1697 eof la = (None,
      if la = CH_I then ADVANCE 1713 else END_STATE)"

definition mozcpp_kw_1698 :: "bool \<Rightarrow> codepoint \<Rightarrow> lex_case" where
  "mozcpp_kw_1698 eof la = (None,
      if la = CH_R then ADVANCE 1714 else END_STATE)"

definition mozcpp_kw_1699 :: "bool \<Rightarrow> codepoint \<Rightarrow> lex_case" where
  "mozcpp_kw_1699 eof la = (Some mozcpp_anon_sym_MOZ_MAY_CALL_AFTER_MUST_RETURN, END_STATE)"

definition mozcpp_kw_1700 :: "bool \<Rightarrow> codepoint \<Rightarrow> lex_case" where
  "mozcpp_kw_1700 eof la = (None,
      if la = CH_UNDERSCORE then ADVANCE 1715 else END_STATE)"

definition mozcpp_kw_1701 :: "bool \<Rightarrow> codepoint \<Rightarrow> lex_case" where
  "mozcpp_kw_1701 eof la = (None,
      if la = CH_N then ADVANCE 1716 else END_STATE)"

definition mozcpp_kw_1702 :: "bool \<Rightarrow> codepoint \<Rightarrow> lex_case" where
  "mozcpp_kw_1702 eof la = (None,
      if la = CH_M then ADVANCE 1717 else END_STATE)"

definition mozcpp_kw_1703 :: "bool \<Rightarrow> codepoint \<Rightarrow> lex_case" where
  "mozcpp_kw_1703 eof la = (Some mozcpp_anon_sym_MOZ_NO_DANGLING_ON_TEMPORARIES, END_STATE)"

definition mozcpp_kw_1704 :: "bool \<Rightarrow> codepoint \<Rightarrow> lex_case" where
  "mozcpp_kw_1704 eof la = (None,
      if la = CH_W then ADVANCE 1718 else END_STATE)"

definition mozcpp_kw_1705 :: "bool \<Rightarrow> codepoint \<Rightarrow> lex_case" where
  "mozcpp_kw_1705 eof la = (None,
      if la = CH_L then ADVANCE 1719 else END_STATE)"

definition mozcpp_kw_1706 :: "bool \<Rightarrow> codepoint \<Rightarrow> lex_case" where
  "mozcpp_kw_1706 eof la = (None,
      if la = CH_C then ADVANCE 1720 else END_STATE)"

definition mozcpp_kw_1707 :: "bool \<Rightarrow> codepoint \<Rightarrow> lex_case" where
  "mozcpp_kw_1707 eof la = (None,
      if la = CH_O then ADVANCE 1721 else END_STATE)"

definition mozcpp_kw_1708 :: "bool \<Rightarrow> codepoint \<Rightarrow> lex_case" where
  "mozcpp_kw_1708 eof la = (None,
      if la = CH_C then ADVANCE 1722 else END_STATE)"

definition mozcpp_kw_1709 :: "bool \<Rightarrow> codepoint \<Rightarrow> lex_case" where
  "mozcpp_kw_1709 eof la = (None,
      if la = CH_I then ADVANCE 1723 else END_STATE)"

definition mozcpp_kw_1710 :: "bool \<Rightarrow> codepoint \<Rightarrow> lex_case" where
  "mozcpp_kw_1710 eof la = (None,
      if la = CH_O then ADVANCE 1724 else END_STATE)"

definition mozcpp_kw_1711 :: "bool \<Rightarrow> codepoint \<Rightarrow> lex_case" where
  "mozcpp_kw_1711 eof la = (None,
      if la = CH_I then ADVANCE 1725 else END_STATE)"

definition mozcpp_kw_1712 :: "bool \<Rightarrow> codepoint \<Rightarrow> lex_case" where
  "mozcpp_kw_1712 eof la = (None,
      if la = CH_Z then ADVANCE 1726 else END_STATE)"

definition mozcpp_kw_1713 :: "bool \<Rightarrow> codepoint \<Rightarrow> lex_case" where
  "mozcpp_kw_1713 eof la = (None,
      if la = CH_T then ADVANCE 1727 else END_STATE)"

definition mozcpp_kw_1714 :: "bool \<Rightarrow> codepoint \<Rightarrow> lex_case" where
  "mozcpp_kw_1714 eof la = (None,
      if la = CH_O then ADVANCE 1728 else END_STATE)"

definition mozcpp_kw_1715 :: "bool \<Rightarrow> codepoint \<Rightarrow> lex_case" where
  "mozcpp_kw_1715 eof la = (None,
      if la = CH_T then ADVANCE 1729 else END_STATE)"

definition mozcpp_kw_1716 :: "bool \<Rightarrow> codepoint \<Rightarrow> lex_case" where
  "mozcpp_kw_1716 eof la = (Some mozcpp_anon_sym_MOZ_NO_ADDREF_RELEASE_ON_RETURN, END_STATE)"

definition mozcpp_kw_1717 :: "bool \<Rightarrow> codepoint \<Rightarrow> lex_case" where
  "mozcpp_kw_1717 eof la = (None,
      if la = CH_E then ADVANCE 1730 else END_STATE)"

definition mozcpp_kw_1718 :: "bool \<Rightarrow> codepoint \<Rightarrow> lex_case" where
  "mozcpp_kw_1718 eof la = (Some mozcpp_anon_sym_MOZ_NO_SANITIZE_SIGNED_OVERFLOW, END_STATE)"

definition mozcpp_kw_1719 :: "bool \<Rightarrow> codepoint \<Rightarrow> lex_case" where
  "mozcpp_kw_1719 eof la = (None,
      if la = CH_O then ADVANCE 1731 else END_STATE)"

definition mozcpp_kw_1720 :: "bool \<Rightarrow> codepoint \<Rightarrow> lex_case" where
  "mozcpp_kw_1720 eof la = (None,
      if la = CH_O then ADVANCE 1732 else END_STATE)"

definition mozcpp_kw_1721 :: "bool \<Rightarrow> codepoint \<Rightarrow> lex_case" where
  "mozcpp_kw_1721 eof la = (None,
      if la = CH_N then ADVANCE 1733 else END_STATE)"

definition mozcpp_kw_1722 :: "bool \<Rightarrow> codepoint \<Rightarrow> lex_case" where
  "mozcpp_kw_1722 eof la = (None,
      if la = CH_UNDERSCORE then ADVANCE 1734 else END_STATE)"

definition mozcpp_kw_1723 :: "bool \<Rightarrow> codepoint \<Rightarrow> lex_case" where
  "mozcpp_kw_1723 eof la = (None,
      if la = CH_O then ADVANCE 1735 else END_STATE)"

definition mozcpp_kw_1724 :: "bool \<Rightarrow> codepoint \<Rightarrow> lex_case" where
  "mozcpp_kw_1724 eof la = (None,
      if la = CH_N then ADVANCE 1736 else END_STATE)"

definition mozcpp_kw_1725 :: "bool \<Rightarrow> codepoint \<Rightarrow> lex_case" where
  "mozcpp_kw_1725 eof la = (None,
      if la = CH_E then ADVANCE 1737 else END_STATE)"

definition mozcpp_kw_1726 :: "bool \<Rightarrow> codepoint \<Rightarrow> lex_case" where
  "mozcpp_kw_1726 eof la = (None,
      if la = CH_E then ADVANCE 1738 else END_STATE)"

definition mozcpp_kw_1727 :: "bool \<Rightarrow> codepoint \<Rightarrow> lex_case" where
  "mozcpp_kw_1727 eof la = (None,
      if la = CH_I then ADVANCE 1739 else END_STATE)"

definition mozcpp_kw_1728 :: "bool \<Rightarrow> codepoint \<Rightarrow> lex_case" where
  "mozcpp_kw_1728 eof la = (None,
      if la = CH_M then ADVANCE 1740 else END_STATE)"

definition mozcpp_kw_1729 :: "bool \<Rightarrow> codepoint \<Rightarrow> lex_case" where
  "mozcpp_kw_1729 eof la = (None,
      if la = CH_H then ADVANCE 1741 else END_STATE)"

definition mozcpp_kw_1730 :: "bool \<Rightarrow> codepoint \<Rightarrow> lex_case" where
  "mozcpp_kw_1730 eof la = (None,
      if la = CH_N then ADVANCE 1742 else END_STATE)"

definition mozcpp_kw_1731 :: "bool \<Rightarrow> codepoint \<Rightarrow> lex_case" where
  "mozcpp_kw_1731 eof la = (None,
      if la = CH_W then ADVANCE 1743 else END_STATE)"

definition mozcpp_kw_1732 :: "bool \<Rightarrow> codepoint \<Rightarrow> lex_case" where
  "mozcpp_kw_1732 eof la = (None,
      if la = CH_N then ADVANCE 1744 else END_STATE)"

definition mozcpp_kw_1733 :: "bool \<Rightarrow> codepoint \<Rightarrow> lex_case" where
  "mozcpp_kw_1733 eof la = (None,
      if la = CH_UNDERSCORE then ADVANCE 1745 else END_STATE)"

definition mozcpp_kw_1734 :: "bool \<Rightarrow> codepoint \<Rightarrow> lex_case" where
  "mozcpp_kw_1734 eof la = (None,
      if la = CH_A then ADVANCE 1746 else END_STATE)"

definition mozcpp_kw_1735 :: "bool \<Rightarrow> codepoint \<Rightarrow> lex_case" where
  "mozcpp_kw_1735 eof la = (None,
      if la = CH_N then ADVANCE 1747 else END_STATE)"

definition mozcpp_kw_1736 :: "bool \<Rightarrow> codepoint \<Rightarrow> lex_case" where
  "mozcpp_kw_1736 eof la = (Some mozcpp_anon_sym_MOZ_CAN_RUN_SCRIPT_FOR_DEFINITION, END_STATE)"

definition mozcpp_kw_1737 :: "bool \<Rightarrow> codepoint \<Rightarrow> lex_case" where
  "mozcpp_kw_1737 eof la = (None,
      if la = CH_R then ADVANCE 1748 else END_STATE)"

definition mozcpp_kw_1738 :: "bool \<Rightarrow> codepoint \<Rightarrow> lex_case" where
  "mozcpp_kw_1738 eof la = (None,
      if la = CH_UNDERSCORE then ADVANCE 1749 else END_STATE)"

definition mozcpp_kw_1739 :: "bool \<Rightarrow> codepoint \<Rightarrow> lex_case" where
  "mozcpp_kw_1739 eof la = (None,
      if la = CH_Z then ADVANCE 1750 else END_STATE)"

definition mozcpp_kw_1740 :: "bool \<Rightarrow> codepoint \<Rightarrow> lex_case" where
  "mozcpp_kw_1740 eof la = (None,
      if la = CH_UNDERSCORE then ADVANCE 1751 else END_STATE)"

definition mozcpp_kw_1741 :: "bool \<Rightarrow> codepoint \<Rightarrow> lex_case" where
  "mozcpp_kw_1741 eof la = (None,
      if la = CH_I then ADVANCE 1752 else END_STATE)"

definition mozcpp_kw_1742 :: "bool \<Rightarrow> codepoint \<Rightarrow> lex_case" where
  "mozcpp_kw_1742 eof la = (None,
      if la = CH_T then ADVANCE 1753 else END_STATE)"

definition mozcpp_kw_1743 :: "bool \<Rightarrow> codepoint \<Rightarrow> lex_case" where
  "mozcpp_kw_1743 eof la = (Some mozcpp_anon_sym_MOZ_NO_SANITIZE_UNSIGNED_OVERFLOW, END_STATE)"

definition mozcpp_kw_1744 :: "bool \<Rightarrow> codepoint \<Rightarrow> lex_case" where
  "mozcpp_kw_1744 eof la = (None,
      if la = CH_S then ADVANCE 1754 else END_STATE)"

definition mozcpp_kw_1745 :: "bool \<Rightarrow> codepoint \<Rightarrow> lex_case" where
  "mozcpp_kw_1745 eof la = (None,
      if la = CH_W then ADVANCE 1755 else END_STATE)"

definition mozcpp_kw_1746 :: "bool \<Rightarrow> codepoint \<Rightarrow> lex_case" where
  "mozcpp_kw_1746 eof la = (None,
      if la = CH_N then ADVANCE 1756 else END_STATE)"

definition mozcpp_kw_1747 :: "bool \<Rightarrow> codepoint \<Rightarrow> lex_case" where
  "mozcpp_kw_1747 eof la = (None,
      if la = CH_UNDERSCORE then ADVANCE 1757 else END_STATE)"

definition mozcpp_kw_1748 :: "bool \<Rightarrow> codepoint \<Rightarrow> lex_case" where
  "mozcpp_kw_1748 eof la = (Some mozcpp_sym_macro_statement, END_STATE)"

definition mozcpp_kw_1749 :: "bool \<Rightarrow> codepoint \<Rightarrow> lex_case" where
  "mozcpp_kw_1749 eof la = (None,
      if la = CH_A then ADVANCE 1758 else END_STATE)"

definition mozcpp_kw_1750 :: "bool \<Rightarrow> codepoint \<Rightarrow> lex_case" where
  "mozcpp_kw_1750 eof la = (None,
      if la = CH_E then ADVANCE 1759 else END_STATE)"

definition mozcpp_kw_1751 :: "bool \<Rightarrow> codepoint \<Rightarrow> lex_case" where
  "mozcpp_kw_1751 eof la = (None,
      if la = CH_T then ADVANCE 1760 else END_STATE)"

definition mozcpp_kw_1752 :: "bool \<Rightarrow> codepoint \<Rightarrow> lex_case" where
  "mozcpp_kw_1752 eof la = (None,
      if la = CH_S then ADVANCE 1761 else END_STATE)"

definition mozcpp_kw_1753 :: "bool \<Rightarrow> codepoint \<Rightarrow> lex_case" where
  "mozcpp_kw_1753 eof la = (Some mozcpp_anon_sym_MOZ_NO_ARITHMETIC_EXPR_IN_ARGUMENT, END_STATE)"

definition mozcpp_kw_1754 :: "bool \<Rightarrow> codepoint \<Rightarrow> lex_case" where
  "mozcpp_kw_1754 eof la = (None,
      if la = CH_T then ADVANCE 1762 else END_STATE)"

definition mozcpp_kw_1755 :: "bool \<Rightarrow> codepoint \<Rightarrow> lex_case" where
  "mozcpp_kw_1755 eof la = (None,
      if la = CH_A then ADVANCE 1763 else END_STATE)"

definition mozcpp_kw_1756 :: "bool \<Rightarrow> codepoint \<Rightarrow> lex_case" where
  "mozcpp_kw_1756 eof la = (None,
      if la = CH_A then ADVANCE 1764 else END_STATE)"

definition mozcpp_kw_1757 :: "bool \<Rightarrow> codepoint \<Rightarrow> lex_case" where
  "mozcpp_kw_1757 eof la = (None,
      if la = CH_W then ADVANCE 1765 else END_STATE)"

definition mozcpp_kw_1758 :: "bool \<Rightarrow> codepoint \<Rightarrow> lex_case" where
  "mozcpp_kw_1758 eof la = (None,
      if la = CH_T then ADVANCE 1766 else END_STATE)"

definition mozcpp_kw_1759 :: "bool \<Rightarrow> codepoint \<Rightarrow> lex_case" where
  "mozcpp_kw_1759 eof la = (None,
      if la = CH_UNDERSCORE then ADVANCE 1767 else END_STATE)"

definition mozcpp_kw_1760 :: "bool \<Rightarrow> codepoint \<Rightarrow> lex_case" where
  "mozcpp_kw_1760 eof la = (None,
      if la = CH_E then ADVANCE 1768 else END_STATE)"

definition mozcpp_kw_1761 :: "bool \<Rightarrow> codepoint \<Rightarrow> lex_case" where
  "mozcpp_kw_1761 eof la = (None,
      if la = CH_UNDERSCORE then ADVANCE 1769 else END_STATE)"

definition mozcpp_kw_1762 :: "bool \<Rightarrow> codepoint \<Rightarrow> lex_case" where
  "mozcpp_kw_1762 eof la = (None,
      if la = CH_R then ADVANCE 1770 else END_STATE)"

definition mozcpp_kw_1763 :: "bool \<Rightarrow> codepoint \<Rightarrow> lex_case" where
  "mozcpp_kw_1763 eof la = (None,
      if la = CH_R then ADVANCE 1771 else END_STATE)"

definition mozcpp_kw_1764 :: "bool \<Rightarrow> codepoint \<Rightarrow> lex_case" where
  "mozcpp_kw_1764 eof la = (None,
      if la = CH_L then ADVANCE 1772 else END_STATE)"

definition mozcpp_kw_1765 :: "bool \<Rightarrow> codepoint \<Rightarrow> lex_case" where
  "mozcpp_kw_1765 eof la = (None,
      if la = CH_A then ADVANCE 1773 else END_STATE)"

definition mozcpp_kw_1766 :: "bool \<Rightarrow> codepoint \<Rightarrow> lex_case" where
  "mozcpp_kw_1766 eof la = (None,
      if la = CH_T then ADVANCE 1774 else END_STATE)"

definition mozcpp_kw_1767 :: "bool \<Rightarrow> codepoint \<Rightarrow> lex_case" where
  "mozcpp_kw_1767 eof la = (None,
      if la = CH_A then ADVANCE 1775 else END_STATE)"

definition mozcpp_kw_1768 :: "bool \<Rightarrow> codepoint \<Rightarrow> lex_case" where
  "mozcpp_kw_1768 eof la = (None,
      if la = CH_M then ADVANCE 1776 else END_STATE)"

definition mozcpp_kw_1769 :: "bool \<Rightarrow> codepoint \<Rightarrow> lex_case" where
  "mozcpp_kw_1769 eof la = (None,
      if la = CH_I then ADVANCE 1777 else END_STATE)"

definition mozcpp_kw_1770 :: "bool \<Rightarrow> codepoint \<Rightarrow> lex_case" where
  "mozcpp_kw_1770 eof la = (None,
      if la = CH_U then ADVANCE 1778 else END_STATE)"

definition mozcpp_kw_1771 :: "bool \<Rightarrow> codepoint \<Rightarrow> lex_case" where
  "mozcpp_kw_1771 eof la = (None,
      if la = CH_N then ADVANCE 1779 else END_STATE)"

definition mozcpp_kw_1772 :: "bool \<Rightarrow> codepoint \<Rightarrow> lex_case" where
  "mozcpp_kw_1772 eof la = (None,
      if la = CH_Y then ADVANCE 1780 else END_STATE)"

definition mozcpp_kw_1773 :: "bool \<Rightarrow> codepoint \<Rightarrow> lex_case" where
  "mozcpp_kw_1773 eof la = (None,
      if la = CH_R then ADVANCE 1781 else END_STATE)"

definition mozcpp_kw_1774 :: "bool \<Rightarrow> codepoint \<Rightarrow> lex_case" where
  "mozcpp_kw_1774 eof la = (None,
      if la = CH_R then ADVANCE 1782 else END_STATE)"

definition mozcpp_kw_1775 :: "bool \<Rightarrow> codepoint \<Rightarrow> lex_case" where
  "mozcpp_kw_1775 eof la = (None,
      if la = CH_T then ADVANCE 1783 else END_STATE)"

definition mozcpp_kw_1776 :: "bool \<Rightarrow> codepoint \<Rightarrow> lex_case" where
  "mozcpp_kw_1776 eof la = (None,
      if la = CH_P then ADVANCE 1784 else END_STATE)"

definition mozcpp_kw_1777 :: "bool \<Rightarrow> codepoint \<Rightarrow> lex_case" where
  "mozcpp_kw_1777 eof la = (None,
      if la = CH_S then ADVANCE 1785 else END_STATE)"

definition mozcpp_kw_1778 :: "bool \<Rightarrow> codepoint \<Rightarrow> lex_case" where
  "mozcpp_kw_1778 eof la = (None,
      if la = CH_C then ADVANCE 1786 else END_STATE)"

definition mozcpp_kw_1779 :: "bool \<Rightarrow> codepoint \<Rightarrow> lex_case" where
  "mozcpp_kw_1779 eof la = (None,
      if la = CH_I then ADVANCE 1787 else END_STATE)"

definition mozcpp_kw_1780 :: "bool \<Rightarrow> codepoint \<Rightarrow> lex_case" where
  "mozcpp_kw_1780 eof la = (None,
      if la = CH_S then ADVANCE 1788 else END_STATE)"

definition mozcpp_kw_1781 :: "bool \<Rightarrow> codepoint \<Rightarrow> lex_case" where
  "mozcpp_kw_1781 eof la = (None,
      if la = CH_N then ADVANCE 1789 else END_STATE)"

definition mozcpp_kw_1782 :: "bool \<Rightarrow> codepoint \<Rightarrow> lex_case" where
  "mozcpp_kw_1782 eof la = (Some mozcpp_anon_sym_MOZ_HAVE_SIGNED_OVERFLOW_SANITIZE_ATTR,
    END_STATE)"

definition mozcpp_kw_1783 :: "bool \<Rightarrow> codepoint \<Rightarrow> lex_case" where
  "mozcpp_kw_1783 eof la = (None,
      if la = CH_T then ADVANCE 1790 else END_STATE)"

definition mozcpp_kw_1784 :: "bool \<Rightarrow> codepoint \<Rightarrow> lex_case" where
  "mozcpp_kw_1784 eof la = (None,
      if la = CH_L then ADVANCE 1791 else END_STATE)"

definition mozcpp_kw_1785 :: "bool \<Rightarrow> codepoint \<Rightarrow> lex_case" where
  "mozcpp_kw_1785 eof la = (None,
      if la = CH_UNDERSCORE then ADVANCE 1792 else END_STATE)"

definition mozcpp_kw_1786 :: "bool \<Rightarrow> codepoint \<Rightarrow> lex_case" where
  "mozcpp_kw_1786 eof la = (None,
      if la = CH_T then ADVANCE 1793 else END_STATE)"

definition mozcpp_kw_1787 :: "bool \<Rightarrow> codepoint \<Rightarrow> lex_case" where
  "mozcpp_kw_1787 eof la = (None,
      if la = CH_N then ADVANCE 1794 else END_STATE)"

definition mozcpp_kw_1788 :: "bool \<Rightarrow> codepoint \<Rightarrow> lex_case" where
  "mozcpp_kw_1788 eof la = (None,
      if la = CH_I then ADVANCE 1795 else END_STATE)"

definition mozcpp_kw_1789 :: "bool \<Rightarrow> codepoint \<Rightarrow> lex_case" where
  "mozcpp_kw_1789 eof la = (None,
      if la = CH_I then ADVANCE 1796 else END_STATE)"

definition mozcpp_kw_1790 :: "bool \<Rightarrow> codepoint \<Rightarrow> lex_case" where
  "mozcpp_kw_1790 eof la = (None,
      if la = CH_R then ADVANCE 1797 else END_STATE)"

definition mozcpp_kw_1791 :: "bool \<Rightarrow> codepoint \<Rightarrow> lex_case" where
  "mozcpp_kw_1791 eof la = (None,
      if la = CH_A then ADVANCE 1798 else END_STATE)"

definition mozcpp_kw_1792 :: "bool \<Rightarrow> codepoint \<Rightarrow> lex_case" where
  "mozcpp_kw_1792 eof la = (None,
      if la = CH_A then ADVANCE 1799 else END_STATE)"

definition mozcpp_kw_1793 :: "bool \<Rightarrow> codepoint \<Rightarrow> lex_case" where
  "mozcpp_kw_1793 eof la = (None,
      if la = CH_O then ADVANCE 1800 else END_STATE)"

definition mozcpp_kw_1794 :: "bool \<Rightarrow> codepoint \<Rightarrow> lex_case" where
  "mozcpp_kw_1794 eof la = (None,
      if la = CH_G then ADVANCE 1801 else END_STATE)"

definition mozcpp_kw_1795 :: "bool \<Rightarrow> codepoint \<Rightarrow> lex_case" where
  "mozcpp_kw_1795 eof la = (None,
      if la = CH_S then ADVANCE 1802 else END_STATE)"

definition mozcpp_kw_1796 :: "bool \<Rightarrow> codepoint \<Rightarrow> lex_case" where
  "mozcpp_kw_1796 eof la = (None,
      if la = CH_N then ADVANCE 1803 else END_STATE)"

definition mozcpp_kw_1797 :: "bool \<Rightarrow> codepoint \<Rightarrow> lex_case" where
  "mozcpp_kw_1797 eof la = (Some mozcpp_anon_sym_MOZ_HAVE_UNSIGNED_OVERFLOW_SANITIZE_ATTR,
    END_STATE)"

definition mozcpp_kw_1798 :: "bool \<Rightarrow> codepoint \<Rightarrow> lex_case" where
  "mozcpp_kw_1798 eof la = (None,
      if la = CH_T then ADVANCE 1804 else END_STATE)"

definition mozcpp_kw_1799 :: "bool \<Rightarrow> codepoint \<Rightarrow> lex_case" where
  "mozcpp_kw_1799 eof la = (None,
      if la = CH_R then ADVANCE 1805 else END_STATE)"

definition mozcpp_kw_1800 :: "bool \<Rightarrow> codepoint \<Rightarrow> lex_case" where
  "mozcpp_kw_1800 eof la = (None,
      if la = CH_R then ADVANCE 1806 else END_STATE)"

definition mozcpp_kw_1801 :: "bool \<Rightarrow> codepoint \<Rightarrow> lex_case" where
  "mozcpp_kw_1801 eof la = (None,
      if la = CH_S then ADVANCE 1807 else END_STATE)"

definition mozcpp_kw_1802 :: "bool \<Rightarrow> codepoint \<Rightarrow> lex_case" where
  "mozcpp_kw_1802 eof la = (Some mozcpp_anon_sym_MOZ_PRETEND_NORETURN_FOR_STATIC_ANALYSIS,
    END_STATE)"

definition mozcpp_kw_1803 :: "bool \<Rightarrow> codepoint \<Rightarrow> lex_case" where
  "mozcpp_kw_1803 eof la = (None,
      if la = CH_G then ADVANCE 1808 else END_STATE)"

definition mozcpp_kw_1804 :: "bool \<Rightarrow> codepoint \<Rightarrow> lex_case" where
  "mozcpp_kw_1804 eof la = (None,
      if la = CH_E then ADVANCE 1809 else END_STATE)"

definition mozcpp_kw_1805 :: "bool \<Rightarrow> codepoint \<Rightarrow> lex_case" where
  "mozcpp_kw_1805 eof la = (None,
      if la = CH_G then ADVANCE 1810 else END_STATE)"

definition mozcpp_kw_1806 :: "bool \<Rightarrow> codepoint \<Rightarrow> lex_case" where
  "mozcpp_kw_1806 eof la = (None,
      if la = CH_S then ADVANCE 1811 else END_STATE)"

definition mozcpp_kw_1807 :: "bool \<Rightarrow> codepoint \<Rightarrow> lex_case" where
  "mozcpp_kw_1807 eof la = (Some mozcpp_anon_sym_MOZ_POP_DISABLE_NONTRIVIAL_UNION_WARNINGS,
    END_STATE)"

definition mozcpp_kw_1808 :: "bool \<Rightarrow> codepoint \<Rightarrow> lex_case" where
  "mozcpp_kw_1808 eof la = (None,
      if la = CH_S then ADVANCE 1812 else END_STATE)"

definition mozcpp_kw_1809 :: "bool \<Rightarrow> codepoint \<Rightarrow> lex_case" where
  "mozcpp_kw_1809 eof la = (None,
      if la = CH_UNDERSCORE then ADVANCE 1813 else END_STATE)"

definition mozcpp_kw_1810 :: "bool \<Rightarrow> codepoint \<Rightarrow> lex_case" where
  "mozcpp_kw_1810 eof la = (Some mozcpp_anon_sym_MOZ_MUST_RETURN_FROM_CALLER_IF_THIS_IS_ARG,
    END_STATE)"

definition mozcpp_kw_1811 :: "bool \<Rightarrow> codepoint \<Rightarrow> lex_case" where
  "mozcpp_kw_1811 eof la = (Some mozcpp_anon_sym_MOZ_ONLY_USED_TO_AVOID_STATIC_CONSTRUCTORS,
    END_STATE)"

definition mozcpp_kw_1812 :: "bool \<Rightarrow> codepoint \<Rightarrow> lex_case" where
  "mozcpp_kw_1812 eof la = (Some mozcpp_anon_sym_MOZ_PUSH_DISABLE_NONTRIVIAL_UNION_WARNINGS,
    END_STATE)"

definition mozcpp_kw_1813 :: "bool \<Rightarrow> codepoint \<Rightarrow> lex_case" where
  "mozcpp_kw_1813 eof la = (None,
      if la = CH_A then ADVANCE 1814 else END_STATE)"

definition mozcpp_kw_1814 :: "bool \<Rightarrow> codepoint \<Rightarrow> lex_case" where
  "mozcpp_kw_1814 eof la = (None,
      if la = CH_R then ADVANCE 1815 else END_STATE)"

definition mozcpp_kw_1815 :: "bool \<Rightarrow> codepoint \<Rightarrow> lex_case" where
  "mozcpp_kw_1815 eof la = (None,
      if la = CH_G then ADVANCE 1816 else END_STATE)"

definition mozcpp_kw_1816 :: "bool \<Rightarrow> codepoint \<Rightarrow> lex_case" where
  "mozcpp_kw_1816 eof la = (None,
      if la = CH_S then ADVANCE 1817 else END_STATE)"

definition mozcpp_kw_1817 :: "bool \<Rightarrow> codepoint \<Rightarrow> lex_case" where
  "mozcpp_kw_1817 eof la = (Some mozcpp_anon_sym_MOZ_INHERIT_TYPE_ANNOTATIONS_FROM_TEMPLATE_ARGS,
    END_STATE)"

definition mozcpp_kw_cases_0 :: "(bool \<Rightarrow> codepoint \<Rightarrow> lex_case) list" where
  "mozcpp_kw_cases_0 = [mozcpp_kw_0, mozcpp_kw_1, mozcpp_kw_2, mozcpp_kw_3, mozcpp_kw_4,
    mozcpp_kw_5, mozcpp_kw_6, mozcpp_kw_7, mozcpp_kw_8, mozcpp_kw_9, mozcpp_kw_10, mozcpp_kw_11,
    mozcpp_kw_12, mozcpp_kw_13, mozcpp_kw_14, mozcpp_kw_15, mozcpp_kw_16, mozcpp_kw_17,
    mozcpp_kw_18, mozcpp_kw_19, mozcpp_kw_20, mozcpp_kw_21, mozcpp_kw_22, mozcpp_kw_23,
    mozcpp_kw_24, mozcpp_kw_25, mozcpp_kw_26, mozcpp_kw_27]"

definition mozcpp_kw_cases_1 :: "(bool \<Rightarrow> codepoint \<Rightarrow> lex_case) list" where
  "mozcpp_kw_cases_1 = [mozcpp_kw_28, mozcpp_kw_29, mozcpp_kw_30, mozcpp_kw_31, mozcpp_kw_32,
    mozcpp_kw_33, mozcpp_kw_34, mozcpp_kw_35, mozcpp_kw_36, mozcpp_kw_37, mozcpp_kw_38,
    mozcpp_kw_39, mozcpp_kw_40, mozcpp_kw_41, mozcpp_kw_42, mozcpp_kw_43, mozcpp_kw_44,
    mozcpp_kw_45, mozcpp_kw_46, mozcpp_kw_47, mozcpp_kw_48, mozcpp_kw_49, mozcpp_kw_50,
    mozcpp_kw_51, mozcpp_kw_52, mozcpp_kw_53, mozcpp_kw_54, mozcpp_kw_55, mozcpp_kw_56,
    mozcpp_kw_57, mozcpp_kw_58, mozcpp_kw_59, mozcpp_kw_60, mozcpp_kw_61, mozcpp_kw_62,
    mozcpp_kw_63, mozcpp_kw_64, mozcpp_kw_65, mozcpp_kw_66, mozcpp_kw_67, mozcpp_kw_68]"

definition mozcpp_kw_cases_2 :: "(bool \<Rightarrow> codepoint \<Rightarrow> lex_case) list" where
  "mozcpp_kw_cases_2 = [mozcpp_kw_69, mozcpp_kw_70, mozcpp_kw_71, mozcpp_kw_72, mozcpp_kw_73,
    mozcpp_kw_74, mozcpp_kw_75, mozcpp_kw_76, mozcpp_kw_77, mozcpp_kw_78, mozcpp_kw_79,
    mozcpp_kw_80, mozcpp_kw_81, mozcpp_kw_82, mozcpp_kw_83, mozcpp_kw_84, mozcpp_kw_85,
    mozcpp_kw_86, mozcpp_kw_87, mozcpp_kw_88, mozcpp_kw_89, mozcpp_kw_90, mozcpp_kw_91,
    mozcpp_kw_92, mozcpp_kw_93, mozcpp_kw_94, mozcpp_kw_95, mozcpp_kw_96, mozcpp_kw_97,
    mozcpp_kw_98, mozcpp_kw_99, mozcpp_kw_100, mozcpp_kw_101, mozcpp_kw_102, mozcpp_kw_103,
    mozcpp_kw_104, mozcpp_kw_105, mozcpp_kw_106, mozcpp_kw_107, mozcpp_kw_108, mozcpp_kw_109,
    mozcpp_kw_110, mozcpp_kw_111, mozcpp_kw_112]"

definition mozcpp_kw_cases_3 :: "(bool \<Rightarrow> codepoint \<Rightarrow> lex_case) list" where
  "mozcpp_kw_cases_3 = [mozcpp_kw_113, mozcpp_kw_114, mozcpp_kw_115, mozcpp_kw_116,
    mozcpp_kw_117, mozcpp_kw_118, mozcpp_kw_119, mozcpp_kw_120, mozcpp_kw_121, mozcpp_kw_122,
    mozcpp_kw_123, mozcpp_kw_124, mozcpp_kw_125, mozcpp_kw_126, mozcpp_kw_127, mozcpp_kw_128,
    mozcpp_kw_129, mozcpp_kw_130, mozcpp_kw_131, mozcpp_kw_132, mozcpp_kw_133, mozcpp_kw_134,
    mozcpp_kw_135, mozcpp_kw_136, mozcpp_kw_137, mozcpp_kw_138, mozcpp_kw_139, mozcpp_kw_140,
    mozcpp_kw_141, mozcpp_kw_142, mozcpp_kw_143, mozcpp_kw_144, mozcpp_kw_145, mozcpp_kw_146,
    mozcpp_kw_147, mozcpp_kw_148, mozcpp_kw_149, mozcpp_kw_150, mozcpp_kw_151, mozcpp_kw_152,
    mozcpp_kw_153, mozcpp_kw_154, mozcpp_kw_155, mozcpp_kw_156, mozcpp_kw_157]"

definition mozcpp_kw_cases_4 :: "(bool \<Rightarrow> codepoint \<Rightarrow> lex_case) list" where
  "mozcpp_kw_cases_4 = [mozcpp_kw_158, mozcpp_kw_159, mozcpp_kw_160, mozcpp_kw_161,
    mozcpp_kw_162, mozcpp_kw_163, mozcpp_kw_164, mozcpp_kw_165, mozcpp_kw_166, mozcpp_kw_167,
    mozcpp_kw_168, mozcpp_kw_169, mozcpp_kw_170, mozcpp_kw_171, mozcpp_kw_172, mozcpp_kw_173,
    mozcpp_kw_174, mozcpp_kw_175, mozcpp_kw_176, mozcpp_kw_177, mozcpp_kw_178, mozcpp_kw_179,
    mozcpp_kw_180, mozcpp_kw_181, mozcpp_kw_182, mozcpp_kw_183, mozcpp_kw_184, mozcpp_kw_185,
    mozcpp_kw_186, mozcpp_kw_187, mozcpp_kw_188, mozcpp_kw_189, mozcpp_kw_190, mozcpp_kw_191,
    mozcpp_kw_192, mozcpp_kw_193, mozcpp_kw_194, mozcpp_kw_195, mozcpp_kw_196, mozcpp_kw_197,
    mozcpp_kw_198, mozcpp_kw_199, mozcpp_kw_200, mozcpp_kw_201]"

definition mozcpp_kw_cases_5 :: "(bool \<Rightarrow> codepoint \<Rightarrow> lex_case) list" where
  "mozcpp_kw_cases_5 = [mozcpp_kw_202, mozcpp_kw_203, mozcpp_kw_204, mozcpp_kw_205,
    mozcpp_kw_206, mozcpp_kw_207, mozcpp_kw_208, mozcpp_kw_209, mozcpp_kw_210, mozcpp_kw_211,
    mozcpp_kw_212, mozcpp_kw_213, mozcpp_kw_214, mozcpp_kw_215, mozcpp_kw_216, mozcpp_kw_217,
    mozcpp_kw_218, mozcpp_kw_219, mozcpp_kw_220, mozcpp_kw_221, mozcpp_kw_222, mozcpp_kw_223,
    mozcpp_kw_224, mozcpp_kw_225, mozcpp_kw_226, mozcpp_kw_227, mozcpp_kw_228, mozcpp_kw_229,
    mozcpp_kw_230, mozcpp_kw_231, mozcpp_kw_232, mozcpp_kw_233, mozcpp_kw_234, mozcpp_kw_235,
    mozcpp_kw_236, mozcpp_kw_237, mozcpp_kw_238, mozcpp_kw_239, mozcpp_kw_240, mozcpp_kw_241,
    mozcpp_kw_242, mozcpp_kw_243, mozcpp_kw_244, mozcpp_kw_245, mozcpp_kw_246, mozcpp_kw_247,
    mozcpp_kw_248, mozcpp_kw_249, mozcpp_kw_250]"

definition mozcpp_kw_cases_6 :: "(bool \<Rightarrow> codepoint \<Rightarrow> lex_case) list" where
  "mozcpp_kw_cases_6 = [mozcpp_kw_251, mozcpp_kw_252, mozcpp_kw_253, mozcpp_kw_254,
    mozcpp_kw_255, mozcpp_kw_256, mozcpp_kw_257, mozcpp_kw_258, mozcpp_kw_259, mozcpp_kw_260,
    mozcpp_kw_261, mozcpp_kw_262, mozcpp_kw_263, mozcpp_kw_264, mozcpp_kw_265, mozcpp_kw_266,
    mozcpp_kw_267, mozcpp_kw_268, mozcpp_kw_269, mozcpp_kw_270, mozcpp_kw_271, mozcpp_kw_272,
    mozcpp_kw_273, mozcpp_kw_274, mozcpp_kw_275, mozcpp_kw_276, mozcpp_kw_277, mozcpp_kw_278,
    mozcpp_kw_279, mozcpp_kw_280, mozcpp_kw_281, mozcpp_kw_282, mozcpp_kw_283, mozcpp_kw_284,
    mozcpp_kw_285, mozcpp_kw_286, mozcpp_kw_287, mozcpp_kw_288, mozcpp_kw_289, mozcpp_kw_290,
    mozcpp_kw_291, mozcpp_kw_292, mozcpp_kw_293, mozcpp_kw_294, mozcpp_kw_295, mozcpp_kw_296,
    mozcpp_kw_297, mozcpp_kw_298, mozcpp_kw_299]"

definition mozcpp_kw_cases_7 :: "(bool \<Rightarrow> codepoint \<Rightarrow> lex_case) list" where
  "mozcpp_kw_cases_7 = [mozcpp_kw_300, mozcpp_kw_301, mozcpp_kw_302, mozcpp_kw_303,
    mozcpp_kw_304, mozcpp_kw_305, mozcpp_kw_306, mozcpp_kw_307, mozcpp_kw_308, mozcpp_kw_309,
    mozcpp_kw_310, mozcpp_kw_311, mozcpp_kw_312, mozcpp_kw_313, mozcpp_kw_314, mozcpp_kw_315,
    mozcpp_kw_316, mozcpp_kw_317, mozcpp_kw_318, mozcpp_kw_319, mozcpp_kw_320, mozcpp_kw_321,
    mozcpp_kw_322, mozcpp_kw_323, mozcpp_kw_324, mozcpp_kw_325, mozcpp_kw_326, mozcpp_kw_327,
    mozcpp_kw_328, mozcpp_kw_329, mozcpp_kw_330, mozcpp_kw_331, mozcpp_kw_332, mozcpp_kw_333,
    mozcpp_kw_334, mozcpp_kw_335, mozcpp_kw_336, mozcpp_kw_337, mozcpp_kw_338, mozcpp_kw_339,
    mozcpp_kw_340, mozcpp_kw_341, mozcpp_kw_342, mozcpp_kw_343, mozcpp_kw_344]"

definition mozcpp_kw_cases_8 :: "(bool \<Rightarrow> codepoint \<Rightarrow> lex_case) list" where
  "mozcpp_kw_cases_8 = [mozcpp_kw_345, mozcpp_kw_346, mozcpp_kw_347, mozcpp_kw_348,
    mozcpp_kw_349, mozcpp_kw_350, mozcpp_kw_351, mozcpp_kw_352, mozcpp_kw_353, mozcpp_kw_354,
    mozcpp_kw_355, mozcpp_kw_356, mozcpp_kw_357, mozcpp_kw_358, mozcpp_kw_359, mozcpp_kw_360,
    mozcpp_kw_361, mozcpp_kw_362, mozcpp_kw_363, mozcpp_kw_364, mozcpp_kw_365, mozcpp_kw_366,
    mozcpp_kw_367, mozcpp_kw_368, mozcpp_kw_369, mozcpp_kw_370, mozcpp_kw_371, mozcpp_kw_372,
    mozcpp_kw_373, mozcpp_kw_374, mozcpp_kw_375, mozcpp_kw_376, mozcpp_kw_377, mozcpp_kw_378,
    mozcpp_kw_379, mozcpp_kw_380, mozcpp_kw_381, mozcpp_kw_382, mozcpp_kw_383, mozcpp_kw_384,
    mozcpp_kw_385, mozcpp_kw_386, mozcpp_kw_387, mozcpp_kw_388, mozcpp_kw_389, mozcpp_kw_390,
    mozcpp_kw_391, mozcpp_kw_392, mozcpp_kw_393]"

definition mozcpp_kw_cases_9 :: "(bool \<Rightarrow> codepoint \<Rightarrow> lex_case) list" where
  "mozcpp_kw_cases_9 = [mozcpp_kw_394, mozcpp_kw_395, mozcpp_kw_396, mozcpp_kw_397,
    mozcpp_kw_398, mozcpp_kw_399, mozcpp_kw_400, mozcpp_kw_401, mozcpp_kw_402, mozcpp_kw_403,
    mozcpp_kw_404, mozcpp_kw_405, mozcpp_kw_406, mozcpp_kw_407, mozcpp_kw_408, mozcpp_kw_409,
    mozcpp_kw_410, mozcpp_kw_411, mozcpp_kw_412, mozcpp_kw_413, mozcpp_kw_414, mozcpp_kw_415,
    mozcpp_kw_416, mozcpp_kw_417, mozcpp_kw_418, mozcpp_kw_419, mozcpp_kw_420, mozcpp_kw_421,
    mozcpp_kw_422, mozcpp_kw_423, mozcpp_kw_424, mozcpp_kw_425, mozcpp_kw_426, mozcpp_kw_427,
    mozcpp_kw_428, mozcpp_kw_429, mozcpp_kw_430, mozcpp_kw_431, mozcpp_kw_432, mozcpp_kw_433,
    mozcpp_kw_434, mozcpp_kw_435, mozcpp_kw_436, mozcpp_kw_437, mozcpp_kw_438, mozcpp_kw_439,
    mozcpp_kw_440, mozcpp_kw_441]"

definition mozcpp_kw_cases_10 :: "(bool \<Rightarrow> codepoint \<Rightarrow> lex_case) list" where
  "mozcpp_kw_cases_10 = [mozcpp_kw_442, mozcpp_kw_443, mozcpp_kw_444, mozcpp_kw_445,
    mozcpp_kw_446, mozcpp_kw_447, mozcpp_kw_448, mozcpp_kw_449, mozcpp_kw_450, mozcpp_kw_451,
    mozcpp_kw_452, mozcpp_kw_453, mozcpp_kw_454, mozcpp_kw_455, mozcpp_kw_456, mozcpp_kw_457,
    mozcpp_kw_458, mozcpp_kw_459, mozcpp_kw_460, mozcpp_kw_461, mozcpp_kw_462, mozcpp_kw_463,
    mozcpp_kw_464, mozcpp_kw_465, mozcpp_kw_466, mozcpp_kw_467, mozcpp_kw_468, mozcpp_kw_469,
    mozcpp_kw_470, mozcpp_kw_471, mozcpp_kw_472, mozcpp_kw_473, mozcpp_kw_474, mozcpp_kw_475,
    mozcpp_kw_476, mozcpp_kw_477, mozcpp_kw_478, mozcpp_kw_479, mozcpp_kw_480, mozcpp_kw_481,
    mozcpp_kw_482, mozcpp_kw_483, mozcpp_kw_484, mozcpp_kw_485, mozcpp_kw_486, mozcpp_kw_487,
    mozcpp_kw_488, mozcpp_kw_489, mozcpp_kw_490]"

definition mozcpp_kw_cases_11 :: "(bool \<Rightarrow> codepoint \<Rightarrow> lex_case) list" where
  "mozcpp_kw_cases_11 = [mozcpp_kw_491, mozcpp_kw_492, mozcpp_kw_493, mozcpp_kw_494,
    mozcpp_kw_495, mozcpp_kw_496, mozcpp_kw_497, mozcpp_kw_498, mozcpp_kw_499, mozcpp_kw_500,
    mozcpp_kw_501, mozcpp_kw_502, mozcpp_kw_503, mozcpp_kw_504, mozcpp_kw_505, mozcpp_kw_506,
    mozcpp_kw_507, mozcpp_kw_508, mozcpp_kw_509, mozcpp_kw_510, mozcpp_kw_511, mozcpp_kw_512,
    mozcpp_kw_513, mozcpp_kw_514, mozcpp_kw_515, mozcpp_kw_516, mozcpp_kw_517, mozcpp_kw_518,
    mozcpp_kw_519, mozcpp_kw_520, mozcpp_kw_521, mozcpp_kw_522, mozcpp_kw_523, mozcpp_kw_524,
    mozcpp_kw_525, mozcpp_kw_526, mozcpp_kw_527, mozcpp_kw_528, mozcpp_kw_529, mozcpp_kw_530,
    mozcpp_kw_531, mozcpp_kw_532, mozcpp_kw_533, mozcpp_kw_534, mozcpp_kw_535, mozcpp_kw_536,
    mozcpp_kw_537, mozcpp_kw_538, mozcpp_kw_539]"

definition mozcpp_kw_cases_12 :: "(bool \<Rightarrow> codepoint \<Rightarrow> lex_case) list" where
  "mozcpp_kw_cases_12 = [mozcpp_kw_540, mozcpp_kw_541, mozcpp_kw_542, mozcpp_kw_543,
    mozcpp_kw_544, mozcpp_kw_545, mozcpp_kw_546, mozcpp_kw_547, mozcpp_kw_548, mozcpp_kw_549,
    mozcpp_kw_550, mozcpp_kw_551, mozcpp_kw_552, mozcpp_kw_553, mozcpp_kw_554, mozcpp_kw_555,
    mozcpp_kw_556, mozcpp_kw_557, mozcpp_kw_558, mozcpp_kw_559, mozcpp_kw_560, mozcpp_kw_561,
    mozcpp_kw_562, mozcpp_kw_563, mozcpp_kw_564, mozcpp_kw_565, mozcpp_kw_566, mozcpp_kw_567,
    mozcpp_kw_568, mozcpp_kw_569, mozcpp_kw_570, mozcpp_kw_571, mozcpp_kw_572, mozcpp_kw_573,
    mozcpp_kw_574, mozcpp_kw_575, mozcpp_kw_576, mozcpp_kw_577, mozcpp_kw_578, mozcpp_kw_579,
    mozcpp_kw_580, mozcpp_kw_581, mozcpp_kw_582, mozcpp_kw_583, mozcpp_kw_584, mozcpp_kw_585]"

definition mozcpp_kw_cases_13 :: "(bool \<Rightarrow> codepoint \<Rightarrow> lex_case) list" where
  "mozcpp_kw_cases_13 = [mozcpp_kw_586, mozcpp_kw_587, mozcpp_kw_588, mozcpp_kw_589,
    mozcpp_kw_590, mozcpp_kw_591, mozcpp_kw_592, mozcpp_kw_593, mozcpp_kw_594, mozcpp_kw_595,
    mozcpp_kw_596, mozcpp_kw_597, mozcpp_kw_598, mozcpp_kw_599, mozcpp_kw_600, mozcpp_kw_601,
    mozcpp_kw_602, mozcpp_kw_603, mozcpp_kw_604, mozcpp_kw_605, mozcpp_kw_606, mozcpp_kw_607,
    mozcpp_kw_608, mozcpp_kw_609, mozcpp_kw_610, mozcpp_kw_611, mozcpp_kw_612, mozcpp_kw_613,
    mozcpp_kw_614, mozcpp_kw_615, mozcpp_kw_616, mozcpp_kw_617, mozcpp_kw_618, mozcpp_kw_619,
    mozcpp_kw_620, mozcpp_kw_621, mozcpp_kw_622, mozcpp_kw_623, mozcpp_kw_624, mozcpp_kw_625,
    mozcpp_kw_626, mozcpp_kw_627, mozcpp_kw_628, mozcpp_kw_629, mozcpp_kw_630, mozcpp_kw_631,
    mozcpp_kw_632, mozcpp_kw_633, mozcpp_kw_634]"

definition mozcpp_kw_cases_14 :: "(bool \<Rightarrow> codepoint \<Rightarrow> lex_case) list" where
  "mozcpp_kw_cases_14 = [mozcpp_kw_635, mozcpp_kw_636, mozcpp_kw_637, mozcpp_kw_638,
    mozcpp_kw_639, mozcpp_kw_640, mozcpp_kw_641, mozcpp_kw_642, mozcpp_kw_643, mozcpp_kw_644,
    mozcpp_kw_645, mozcpp_kw_646, mozcpp_kw_647, mozcpp_kw_648, mozcpp_kw_649, mozcpp_kw_650,
    mozcpp_kw_651, mozcpp_kw_652, mozcpp_kw_653, mozcpp_kw_654, mozcpp_kw_655, mozcpp_kw_656,
    mozcpp_kw_657, mozcpp_kw_658, mozcpp_kw_659, mozcpp_kw_660, mozcpp_kw_661, mozcpp_kw_662,
    mozcpp_kw_663, mozcpp_kw_664, mozcpp_kw_665, mozcpp_kw_666, mozcpp_kw_667, mozcpp_kw_668,
    mozcpp_kw_669, mozcpp_kw_670, mozcpp_kw_671, mozcpp_kw_672, mozcpp_kw_673, mozcpp_kw_674,
    mozcpp_kw_675, mozcpp_kw_676, mozcpp_kw_677, mozcpp_kw_678, mozcpp_kw_679, mozcpp_kw_680,
    mozcpp_kw_681, mozcpp_kw_682]"

definition mozcpp_kw_cases_15 :: "(bool \<Rightarrow> codepoint \<Rightarrow> lex_case) list" where
  "mozcpp_kw_cases_15 = [mozcpp_kw_683, mozcpp_kw_684, mozcpp_kw_685, mozcpp_kw_686,
    mozcpp_kw_687, mozcpp_kw_688, mozcpp_kw_689, mozcpp_kw_690, mozcpp_kw_691, mozcpp_kw_692,
    mozcpp_kw_693, mozcpp_kw_694, mozcpp_kw_695, mozcpp_kw_696, mozcpp_kw_697, mozcpp_kw_698,
    mozcpp_kw_699, mozcpp_kw_700, mozcpp_kw_701, mozcpp_kw_702, mozcpp_kw_703, mozcpp_kw_704,
    mozcpp_kw_705, mozcpp_kw_706, mozcpp_kw_707, mozcpp_kw_708, mozcpp_kw_709, mozcpp_kw_710,
    mozcpp_kw_711, mozcpp_kw_712, mozcpp_kw_713, mozcpp_kw_714, mozcpp_kw_715, mozcpp_kw_716,
    mozcpp_kw_717, mozcpp_kw_718, mozcpp_kw_719, mozcpp_kw_720, mozcpp_kw_721, mozcpp_kw_722,
    mozcpp_kw_723, mozcpp_kw_724, mozcpp_kw_725, mozcpp_kw_726, mozcpp_kw_727, mozcpp_kw_728,
    mozcpp_kw_729, mozcpp_kw_730, mozcpp_kw_731]"

definition mozcpp_kw_cases_16 :: "(bool \<Rightarrow> codepoint \<Rightarrow> lex_case) list" where
  "mozcpp_kw_cases_16 = [mozcpp_kw_732, mozcpp_kw_733, mozcpp_kw_734, mozcpp_kw_735,
    mozcpp_kw_736, mozcpp_kw_737, mozcpp_kw_738, mozcpp_kw_739, mozcpp_kw_740, mozcpp_kw_741,
    mozcpp_kw_742, mozcpp_kw_743, mozcpp_kw_744, mozcpp_kw_745, mozcpp_kw_746, mozcpp_kw_747,
    mozcpp_kw_748, mozcpp_kw_749, mozcpp_kw_750, mozcpp_kw_751, mozcpp_kw_752, mozcpp_kw_753,
    mozcpp_kw_754, mozcpp_kw_755, mozcpp_kw_756, mozcpp_kw_757, mozcpp_kw_758, mozcpp_kw_759,
    mozcpp_kw_760, mozcpp_kw_761, mozcpp_kw_762, mozcpp_kw_763, mozcpp_kw_764, mozcpp_kw_765,
    mozcpp_kw_766, mozcpp_kw_767, mozcpp_kw_768, mozcpp_kw_769, mozcpp_kw_770, mozcpp_kw_771,
    mozcpp_kw_772, mozcpp_kw_773, mozcpp_kw_774, mozcpp_kw_775, mozcpp_kw_776, mozcpp_kw_777,
    mozcpp_kw_778, mozcpp_kw_779]"

definition mozcpp_kw_cases_17 :: "(bool \<Rightarrow> codepoint \<Rightarrow> lex_case) list" where
  "mozcpp_kw_cases_17 = [mozcpp_kw_780, mozcpp_kw_781, mozcpp_kw_782, mozcpp_kw_783,
    mozcpp_kw_784, mozcpp_kw_785, mozcpp_kw_786, mozcpp_kw_787, mozcpp_kw_788, mozcpp_kw_789,
    mozcpp_kw_790, mozcpp_kw_791, mozcpp_kw_792, mozcpp_kw_793, mozcpp_kw_794, mozcpp_kw_795,
    mozcpp_kw_796, mozcpp_kw_797, mozcpp_kw_798, mozcpp_kw_799, mozcpp_kw_800, mozcpp_kw_801,
    mozcpp_kw_802, mozcpp_kw_803, mozcpp_kw_804, mozcpp_kw_805, mozcpp_kw_806, mozcpp_kw_807,
    mozcpp_kw_808, mozcpp_kw_809, mozcpp_kw_810, mozcpp_kw_811, mozcpp_kw_812, mozcpp_kw_813,
    mozcpp_kw_814, mozcpp_kw_815, mozcpp_kw_816, mozcpp_kw_817, mozcpp_kw_818, mozcpp_kw_819,
    mozcpp_kw_820, mozcpp_kw_821, mozcpp_kw_822, mozcpp_kw_823, mozcpp_kw_824, mozcpp_kw_825,
    mozcpp_kw_826, mozcpp_kw_827, mozcpp_kw_828]"

definition mozcpp_kw_cases_18 :: "(bool \<Rightarrow> codepoint \<Rightarrow> lex_case) list" where
  "mozcpp_kw_cases_18 = [mozcpp_kw_829, mozcpp_kw_830, mozcpp_kw_831, mozcpp_kw_832,
    mozcpp_kw_833, mozcpp_kw_834, mozcpp_kw_835, mozcpp_kw_836, mozcpp_kw_837, mozcpp_kw_838,
    mozcpp_kw_839, mozcpp_kw_840, mozcpp_kw_841, mozcpp_kw_842, mozcpp_kw_843, mozcpp_kw_844,
    mozcpp_kw_845, mozcpp_kw_846, mozcpp_kw_847, mozcpp_kw_848, mozcpp_kw_849, mozcpp_kw_850,
    mozcpp_kw_851, mozcpp_kw_852, mozcpp_kw_853, mozcpp_kw_854, mozcpp_kw_855, mozcpp_kw_856,
    mozcpp_kw_857, mozcpp_kw_858, mozcpp_kw_859, mozcpp_kw_860, mozcpp_kw_861, mozcpp_kw_862,
    mozcpp_kw_863, mozcpp_kw_864, mozcpp_kw_865, mozcpp_kw_866, mozcpp_kw_867, mozcpp_kw_868,
    mozcpp_kw_869, mozcpp_kw_870, mozcpp_kw_871, mozcpp_kw_872, mozcpp_kw_873, mozcpp_kw_874,
    mozcpp_kw_875, mozcpp_kw_876, mozcpp_kw_877]"

definition mozcpp_kw_cases_19 :: "(bool \<Rightarrow> codepoint \<Rightarrow> lex_case) list" where
  "mozcpp_kw_cases_19 = [mozcpp_kw_878, mozcpp_kw_879, mozcpp_kw_880, mozcpp_kw_881,
    mozcpp_kw_882, mozcpp_kw_883, mozcpp_kw_884, mozcpp_kw_885, mozcpp_kw_886, mozcpp_kw_887,
    mozcpp_kw_888, mozcpp_kw_889, mozcpp_kw_890, mozcpp_kw_891, mozcpp_kw_892, mozcpp_kw_893,
    mozcpp_kw_894, mozcpp_kw_895, mozcpp_kw_896, mozcpp_kw_897, mozcpp_kw_898, mozcpp_kw_899,
    mozcpp_kw_900, mozcpp_kw_901, mozcpp_kw_902, mozcpp_kw_903, mozcpp_kw_904, mozcpp_kw_905,
    mozcpp_kw_906, mozcpp_kw_907, mozcpp_kw_908, mozcpp_kw_909, mozcpp_kw_910, mozcpp_kw_911,
    mozcpp_kw_912, mozcpp_kw_913, mozcpp_kw_914, mozcpp_kw_915, mozcpp_kw_916, mozcpp_kw_917,
    mozcpp_kw_918, mozcpp_kw_919, mozcpp_kw_920, mozcpp_kw_921, mozcpp_kw_922, mozcpp_kw_923,
    mozcpp_kw_924, mozcpp_kw_925, mozcpp_kw_926]"

definition mozcpp_kw_cases_20 :: "(bool \<Rightarrow> codepoint \<Rightarrow> lex_case) list" where
  "mozcpp_kw_cases_20 = [mozcpp_kw_927, mozcpp_kw_928, mozcpp_kw_929, mozcpp_kw_930,
    mozcpp_kw_931, mozcpp_kw_932, mozcpp_kw_933, mozcpp_kw_934, mozcpp_kw_935, mozcpp_kw_936,
    mozcpp_kw_937, mozcpp_kw_938, mozcpp_kw_939, mozcpp_kw_940, mozcpp_kw_941, mozcpp_kw_942,
    mozcpp_kw_943, mozcpp_kw_944, mozcpp_kw_945, mozcpp_kw_946, mozcpp_kw_947, mozcpp_kw_948,
    mozcpp_kw_949, mozcpp_kw_950, mozcpp_kw_951, mozcpp_kw_952, mozcpp_kw_953, mozcpp_kw_954,
    mozcpp_kw_955, mozcpp_kw_956, mozcpp_kw_957, mozcpp_kw_958, mozcpp_kw_959, mozcpp_kw_960,
    mozcpp_kw_961, mozcpp_kw_962, mozcpp_kw_963, mozcpp_kw_964, mozcpp_kw_965, mozcpp_kw_966,
    mozcpp_kw_967, mozcpp_kw_968, mozcpp_kw_969, mozcpp_kw_970, mozcpp_kw_971, mozcpp_kw_972,
    mozcpp_kw_973, mozcpp_kw_974, mozcpp_kw_975]"

definition mozcpp_kw_cases_21 :: "(bool \<Rightarrow> codepoint \<Rightarrow> lex_case) list" where
  "mozcpp_kw_cases_21 = [mozcpp_kw_976, mozcpp_kw_977, mozcpp_kw_978, mozcpp_kw_979,
    mozcpp_kw_980, mozcpp_kw_981, mozcpp_kw_982, mozcpp_kw_983, mozcpp_kw_984, mozcpp_kw_985,
    mozcpp_kw_986, mozcpp_kw_987, mozcpp_kw_988, mozcpp_kw_989, mozcpp_kw_990, mozcpp_kw_991,
    mozcpp_kw_992, mozcpp_kw_993, mozcpp_kw_994, mozcpp_kw_995, mozcpp_kw_996, mozcpp_kw_997,
    mozcpp_kw_998, mozcpp_kw_999, mozcpp_kw_1000, mozcpp_kw_1001, mozcpp_kw_1002, mozcpp_kw_1003,
    mozcpp_kw_1004, mozcpp_kw_1005, mozcpp_kw_1006, mozcpp_kw_1007, mozcpp_kw_1008,
    mozcpp_kw_1009, mozcpp_kw_1010, mozcpp_kw_1011, mozcpp_kw_1012, mozcpp_kw_1013,
    mozcpp_kw_1014, mozcpp_kw_1015, mozcpp_kw_1016, mozcpp_kw_1017, mozcpp_kw_1018,
    mozcpp_kw_1019, mozcpp_kw_1020, mozcpp_kw_1021, mozcpp_kw_1022, mozcpp_kw_1023,
    mozcpp_kw_1024]"

definition mozcpp_kw_cases_22 :: "(bool \<Rightarrow> codepoint \<Rightarrow> lex_case) list" where
  "mozcpp_kw_cases_22 = [mozcpp_kw_1025, mozcpp_kw_1026, mozcpp_kw_1027, mozcpp_kw_1028,
    mozcpp_kw_1029, mozcpp_kw_1030, mozcpp_kw_1031, mozcpp_kw_1032, mozcpp_kw_1033,
    mozcpp_kw_1034, mozcpp_kw_1035, mozcpp_kw_1036, mozcpp_kw_1037, mozcpp_kw_1038,
    mozcpp_kw_1039, mozcpp_kw_1040, mozcpp_kw_1041, mozcpp_kw_1042, mozcpp_kw_1043,
    mozcpp_kw_1044, mozcpp_kw_1045, mozcpp_kw_1046, mozcpp_kw_1047, mozcpp_kw_1048,
    mozcpp_kw_1049, mozcpp_kw_1050, mozcpp_kw_1051, mozcpp_kw_1052, mozcpp_kw_1053,
    mozcpp_kw_1054, mozcpp_kw_1055, mozcpp_kw_1056, mozcpp_kw_1057, mozcpp_kw_1058,
    mozcpp_kw_1059, mozcpp_kw_1060, mozcpp_kw_1061, mozcpp_kw_1062, mozcpp_kw_1063,
    mozcpp_kw_1064, mozcpp_kw_1065, mozcpp_kw_1066, mozcpp_kw_1067, mozcpp_kw_1068,
    mozcpp_kw_1069, mozcpp_kw_1070, mozcpp_kw_1071, mozcpp_kw_1072, mozcpp_kw_1073]"

definition mozcpp_kw_cases_23 :: "(bool \<Rightarrow> codepoint \<Rightarrow> lex_case) list" where
  "mozcpp_kw_cases_23 = [mozcpp_kw_1074, mozcpp_kw_1075, mozcpp_kw_1076, mozcpp_kw_1077,
    mozcpp_kw_1078, mozcpp_kw_1079, mozcpp_kw_1080, mozcpp_kw_1081, mozcpp_kw_1082,
    mozcpp_kw_1083, mozcpp_kw_1084, mozcpp_kw_1085, mozcpp_kw_1086, mozcpp_kw_1087,
    mozcpp_kw_1088, mozcpp_kw_1089, mozcpp_kw_1090, mozcpp_kw_1091, mozcpp_kw_1092,
    mozcpp_kw_1093, mozcpp_kw_1094, mozcpp_kw_1095, mozcpp_kw_1096, mozcpp_kw_1097,
    mozcpp_kw_1098, mozcpp_kw_1099, mozcpp_kw_1100, mozcpp_kw_1101, mozcpp_kw_1102,
    mozcpp_kw_1103, mozcpp_kw_1104, mozcpp_kw_1105, mozcpp_kw_1106, mozcpp_kw_1107,
    mozcpp_kw_1108, mozcpp_kw_1109, mozcpp_kw_1110, mozcpp_kw_1111, mozcpp_kw_1112,
    mozcpp_kw_1113, mozcpp_kw_1114, mozcpp_kw_1115, mozcpp_kw_1116, mozcpp_kw_1117,
    mozcpp_kw_1118, mozcpp_kw_1119, mozcpp_kw_1120, mozcpp_kw_1121, mozcpp_kw_1122,
    mozcpp_kw_1123]"

definition mozcpp_kw_cases_24 :: "(bool \<Rightarrow> codepoint \<Rightarrow> lex_case) list" where
  "mozcpp_kw_cases_24 = [mozcpp_kw_1124, mozcpp_kw_1125, mozcpp_kw_1126, mozcpp_kw_1127,
    mozcpp_kw_1128, mozcpp_kw_1129, mozcpp_kw_1130, mozcpp_kw_1131, mozcpp_kw_1132,
    mozcpp_kw_1133, mozcpp_kw_1134, mozcpp_kw_1135, mozcpp_kw_1136, mozcpp_kw_1137,
    mozcpp_kw_1138, mozcpp_kw_1139, mozcpp_kw_1140, mozcpp_kw_1141, mozcpp_kw_1142,
    mozcpp_kw_1143, mozcpp_kw_1144, mozcpp_kw_1145, mozcpp_kw_1146, mozcpp_kw_1147,
    mozcpp_kw_1148, mozcpp_kw_1149, mozcpp_kw_1150, mozcpp_kw_1151, mozcpp_kw_1152,
    mozcpp_kw_1153, mozcpp_kw_1154, mozcpp_kw_1155, mozcpp_kw_1156, mozcpp_kw_1157,
    mozcpp_kw_1158, mozcpp_kw_1159, mozcpp_kw_1160, mozcpp_kw_1161, mozcpp_kw_1162,
    mozcpp_kw_1163, mozcpp_kw_1164, mozcpp_kw_1165, mozcpp_kw_1166, mozcpp_kw_1167,
    mozcpp_kw_1168, mozcpp_kw_1169, mozcpp_kw_1170, mozcpp_kw_1171, mozcpp_kw_1172,
    mozcpp_kw_1173]"

definition mozcpp_kw_cases_25 :: "(bool \<Rightarrow> codepoint \<Rightarrow> lex_case) list" where
  "mozcpp_kw_cases_25 = [mozcpp_kw_1174, mozcpp_kw_1175, mozcpp_kw_1176, mozcpp_kw_1177,
    mozcpp_kw_1178, mozcpp_kw_1179, mozcpp_kw_1180, mozcpp_kw_1181, mozcpp_kw_1182,
    mozcpp_kw_1183, mozcpp_kw_1184, mozcpp_kw_1185, mozcpp_kw_1186, mozcpp_kw_1187,
    mozcpp_kw_1188, mozcpp_kw_1189, mozcpp_kw_1190, mozcpp_kw_1191, mozcpp_kw_1192,
    mozcpp_kw_1193, mozcpp_kw_1194, mozcpp_kw_1195, mozcpp_kw_1196, mozcpp_kw_1197,
    mozcpp_kw_1198, mozcpp_kw_1199, mozcpp_kw_1200, mozcpp_kw_1201, mozcpp_kw_1202,
    mozcpp_kw_1203, mozcpp_kw_1204, mozcpp_kw_1205, mozcpp_kw_1206, mozcpp_kw_1207,
    mozcpp_kw_1208, mozcpp_kw_1209, mozcpp_kw_1210, mozcpp_kw_1211, mozcpp_kw_1212,
    mozcpp_kw_1213, mozcpp_kw_1214, mozcpp_kw_1215, mozcpp_kw_1216, mozcpp_kw_1217,
    mozcpp_kw_1218, mozcpp_kw_1219, mozcpp_kw_1220, mozcpp_kw_1221, mozcpp_kw_1222,
    mozcpp_kw_1223]"

definition mozcpp_kw_cases_26 :: "(bool \<Rightarrow> codepoint \<Rightarrow> lex_case) list" where
  "mozcpp_kw_cases_26 = [mozcpp_kw_1224, mozcpp_kw_1225, mozcpp_kw_1226, mozcpp_kw_1227,
    mozcpp_kw_1228, mozcpp_kw_1229, mozcpp_kw_1230, mozcpp_kw_1231, mozcpp_kw_1232,
    mozcpp_kw_1233, mozcpp_kw_1234, mozcpp_kw_1235, mozcpp_kw_1236, mozcpp_kw_1237,
    mozcpp_kw_1238, mozcpp_kw_1239, mozcpp_kw_1240, mozcpp_kw_1241, mozcpp_kw_1242,
    mozcpp_kw_1243, mozcpp_kw_1244, mozcpp_kw_1245, mozcpp_kw_1246, mozcpp_kw_1247,
    mozcpp_kw_1248, mozcpp_kw_1249, mozcpp_kw_1250, mozcpp_kw_1251, mozcpp_kw_1252,
    mozcpp_kw_1253, mozcpp_kw_1254, mozcpp_kw_1255, mozcpp_kw_1256, mozcpp_kw_1257,
    mozcpp_kw_1258, mozcpp_kw_1259, mozcpp_kw_1260, mozcpp_kw_1261, mozcpp_kw_1262,
    mozcpp_kw_1263, mozcpp_kw_1264, mozcpp_kw_1265, mozcpp_kw_1266, mozcpp_kw_1267,
    mozcpp_kw_1268, mozcpp_kw_1269, mozcpp_kw_1270, mozcpp_kw_1271, mozcpp_kw_1272,
    mozcpp_kw_1273]"

definition mozcpp_kw_cases_27 :: "(bool \<Rightarrow> codepoint \<Rightarrow> lex_case) list" where
  "mozcpp_kw_cases_27 = [mozcpp_kw_1274, mozcpp_kw_1275, mozcpp_kw_1276, mozcpp_kw_1277,
    mozcpp_kw_1278, mozcpp_kw_1279, mozcpp_kw_1280, mozcpp_kw_1281, mozcpp_kw_1282,
    mozcpp_kw_1283, mozcpp_kw_1284, mozcpp_kw_1285, mozcpp_kw_1286, mozcpp_kw_1287,
    mozcpp_kw_1288, mozcpp_kw_1289, mozcpp_kw_1290, mozcpp_kw_1291, mozcpp_kw_1292,
    mozcpp_kw_1293, mozcpp_kw_1294, mozcpp_kw_1295, mozcpp_kw_1296, mozcpp_kw_1297,
    mozcpp_kw_1298, mozcpp_kw_1299, mozcpp_kw_1300, mozcpp_kw_1301, mozcpp_kw_1302,
    mozcpp_kw_1303, mozcpp_kw_1304, mozcpp_kw_1305, mozcpp_kw_1306, mozcpp_kw_1307,
    mozcpp_kw_1308, mozcpp_kw_1309, mozcpp_kw_1310, mozcpp_kw_1311, mozcpp_kw_1312,
    mozcpp_kw_1313, mozcpp_kw_1314, mozcpp_kw_1315, mozcpp_kw_1316, mozcpp_kw_1317,
    mozcpp_kw_1318, mozcpp_kw_1319, mozcpp_kw_1320, mozcpp_kw_1321, mozcpp_kw_1322]"

definition mozcpp_kw_cases_28 :: "(bool \<Rightarrow> codepoint \<Rightarrow> lex_case) list" where
  "mozcpp_kw_cases_28 = [mozcpp_kw_1323, mozcpp_kw_1324, mozcpp_kw_1325, mozcpp_kw_1326,
    mozcpp_kw_1327, mozcpp_kw_1328, mozcpp_kw_1329, mozcpp_kw_1330, mozcpp_kw_1331,
    mozcpp_kw_1332, mozcpp_kw_1333, mozcpp_kw_1334, mozcpp_kw_1335, mozcpp_kw_1336,
    mozcpp_kw_1337, mozcpp_kw_1338, mozcpp_kw_1339, mozcpp_kw_1340, mozcpp_kw_1341,
    mozcpp_kw_1342, mozcpp_kw_1343, mozcpp_kw_1344, mozcpp_kw_1345, mozcpp_kw_1346,
    mozcpp_kw_1347, mozcpp_kw_1348, mozcpp_kw_1349, mozcpp_kw_1350, mozcpp_kw_1351,
    mozcpp_kw_1352, mozcpp_kw_1353, mozcpp_kw_1354, mozcpp_kw_1355, mozcpp_kw_1356,
    mozcpp_kw_1357, mozcpp_kw_1358, mozcpp_kw_1359, mozcpp_kw_1360, mozcpp_kw_1361,
    mozcpp_kw_1362, mozcpp_kw_1363, mozcpp_kw_1364, mozcpp_kw_1365, mozcpp_kw_1366,
    mozcpp_kw_1367, mozcpp_kw_1368, mozcpp_kw_1369, mozcpp_kw_1370, mozcpp_kw_1371]"

definition mozcpp_kw_cases_29 :: "(bool \<Rightarrow> codepoint \<Rightarrow> lex_case) list" where
  "mozcpp_kw_cases_29 = [mozcpp_kw_1372, mozcpp_kw_1373, mozcpp_kw_1374, mozcpp_kw_1375,
    mozcpp_kw_1376, mozcpp_kw_1377, mozcpp_kw_1378, mozcpp_kw_1379, mozcpp_kw_1380,
    mozcpp_kw_1381, mozcpp_kw_1382, mozcpp_kw_1383, mozcpp_kw_1384, mozcpp_kw_1385,
    mozcpp_kw_1386, mozcpp_kw_1387, mozcpp_kw_1388, mozcpp_kw_1389, mozcpp_kw_1390,
    mozcpp_kw_1391, mozcpp_kw_1392, mozcpp_kw_1393, mozcpp_kw_1394, mozcpp_kw_1395,
    mozcpp_kw_1396, mozcpp_kw_1397, mozcpp_kw_1398, mozcpp_kw_1399, mozcpp_kw_1400,
    mozcpp_kw_1401, mozcpp_kw_1402, mozcpp_kw_1403, mozcpp_kw_1404, mozcpp_kw_1405,
    mozcpp_kw_1406, mozcpp_kw_1407, mozcpp_kw_1408, mozcpp_kw_1409, mozcpp_kw_1410,
    mozcpp_kw_1411, mozcpp_kw_1412, mozcpp_kw_1413, mozcpp_kw_1414, mozcpp_kw_1415,
    mozcpp_kw_1416, mozcpp_kw_1417, mozcpp_kw_1418, mozcpp_kw_1419, mozcpp_kw_1420]"

definition mozcpp_kw_cases_30 :: "(bool \<Rightarrow> codepoint \<Rightarrow> lex_case) list" where
  "mozcpp_kw_cases_30 = [mozcpp_kw_1421, mozcpp_kw_1422, mozcpp_kw_1423, mozcpp_kw_1424,
    mozcpp_kw_1425, mozcpp_kw_1426, mozcpp_kw_1427, mozcpp_kw_1428, mozcpp_kw_1429,
    mozcpp_kw_1430, mozcpp_kw_1431, mozcpp_kw_1432, mozcpp_kw_1433, mozcpp_kw_1434,
    mozcpp_kw_1435, mozcpp_kw_1436, mozcpp_kw_1437, mozcpp_kw_1438, mozcpp_kw_1439,
    mozcpp_kw_1440, mozcpp_kw_1441, mozcpp_kw_1442, mozcpp_kw_1443, mozcpp_kw_1444,
    mozcpp_kw_1445, mozcpp_kw_1446, mozcpp_kw_1447, mozcpp_kw_1448, mozcpp_kw_1449,
    mozcpp_kw_1450, mozcpp_kw_1451, mozcpp_kw_1452, mozcpp_kw_1453, mozcpp_kw_1454,
    mozcpp_kw_1455, mozcpp_kw_1456, mozcpp_kw_1457, mozcpp_kw_1458, mozcpp_kw_1459,
    mozcpp_kw_1460, mozcpp_kw_1461, mozcpp_kw_1462, mozcpp_kw_1463, mozcpp_kw_1464,
    mozcpp_kw_1465, mozcpp_kw_1466, mozcpp_kw_1467, mozcpp_kw_1468, mozcpp_kw_1469,
    mozcpp_kw_1470]"

definition mozcpp_kw_cases_31 :: "(bool \<Rightarrow> codepoint \<Rightarrow> lex_case) list" where
  "mozcpp_kw_cases_31 = [mozcpp_kw_1471, mozcpp_kw_1472, mozcpp_kw_1473, mozcpp_kw_1474,
    mozcpp_kw_1475, mozcpp_kw_1476, mozcpp_kw_1477, mozcpp_kw_1478, mozcpp_kw_1479,
    mozcpp_kw_1480, mozcpp_kw_1481, mozcpp_kw_1482, mozcpp_kw_1483, mozcpp_kw_1484,
    mozcpp_kw_1485, mozcpp_kw_1486, mozcpp_kw_1487, mozcpp_kw_1488, mozcpp_kw_1489,
    mozcpp_kw_1490, mozcpp_kw_1491, mozcpp_kw_1492, mozcpp_kw_1493, mozcpp_kw_1494,
    mozcpp_kw_1495, mozcpp_kw_1496, mozcpp_kw_1497, mozcpp_kw_1498, mozcpp_kw_1499,
    mozcpp_kw_1500, mozcpp_kw_1501, mozcpp_kw_1502, mozcpp_kw_1503, mozcpp_kw_1504,
    mozcpp_kw_1505, mozcpp_kw_1506, mozcpp_kw_1507, mozcpp_kw_1508, mozcpp_kw_1509,
    mozcpp_kw_1510, mozcpp_kw_1511, mozcpp_kw_1512, mozcpp_kw_1513, mozcpp_kw_1514,
    mozcpp_kw_1515, mozcpp_kw_1516, mozcpp_kw_1517, mozcpp_kw_1518, mozcpp_kw_1519]"

definition mozcpp_kw_cases_32 :: "(bool \<Rightarrow> codepoint \<Rightarrow> lex_case) list" where
  "mozcpp_kw_cases_32 = [mozcpp_kw_1520, mozcpp_kw_1521, mozcpp_kw_1522, mozcpp_kw_1523,
    mozcpp_kw_1524, mozcpp_kw_1525, mozcpp_kw_1526, mozcpp_kw_1527, mozcpp_kw_1528,
    mozcpp_kw_1529, mozcpp_kw_1530, mozcpp_kw_1531, mozcpp_kw_1532, mozcpp_kw_1533,
    mozcpp_kw_1534, mozcpp_kw_1535, mozcpp_kw_1536, mozcpp_kw_1537, mozcpp_kw_1538,
    mozcpp_kw_1539, mozcpp_kw_1540, mozcpp_kw_1541, mozcpp_kw_1542, mozcpp_kw_1543,
    mozcpp_kw_1544, mozcpp_kw_1545, mozcpp_kw_1546, mozcpp_kw_1547, mozcpp_kw_1548,
    mozcpp_kw_1549, mozcpp_kw_1550, mozcpp_kw_1551, mozcpp_kw_1552, mozcpp_kw_1553,
    mozcpp_kw_1554, mozcpp_kw_1555, mozcpp_kw_1556, mozcpp_kw_1557, mozcpp_kw_1558,
    mozcpp_kw_1559, mozcpp_kw_1560, mozcpp_kw_1561, mozcpp_kw_1562, mozcpp_kw_1563,
    mozcpp_kw_1564, mozcpp_kw_1565, mozcpp_kw_1566, mozcpp_kw_1567, mozcpp_kw_1568,
    mozcpp_kw_1569]"

definition mozcpp_kw_cases_33 :: "(bool \<Rightarrow> codepoint \<Rightarrow> lex_case) list" where
  "mozcpp_kw_cases_33 = [mozcpp_kw_1570, mozcpp_kw_1571, mozcpp_kw_1572, mozcpp_kw_1573,
    mozcpp_kw_1574, mozcpp_kw_1575, mozcpp_kw_1576, mozcpp_kw_1577, mozcpp_kw_1578,
    mozcpp_kw_1579, mozcpp_kw_1580, mozcpp_kw_1581, mozcpp_kw_1582, mozcpp_kw_1583,
    mozcpp_kw_1584, mozcpp_kw_1585, mozcpp_kw_1586, mozcpp_kw_1587, mozcpp_kw_1588,
    mozcpp_kw_1589, mozcpp_kw_1590, mozcpp_kw_1591, mozcpp_kw_1592, mozcpp_kw_1593,
    mozcpp_kw_1594, mozcpp_kw_1595, mozcpp_kw_1596, mozcpp_kw_1597, mozcpp_kw_1598,
    mozcpp_kw_1599, mozcpp_kw_1600, mozcpp_kw_1601, mozcpp_kw_1602, mozcpp_kw_1603,
    mozcpp_kw_1604, mozcpp_kw_1605, mozcpp_kw_1606, mozcpp_kw_1607, mozcpp_kw_1608,
    mozcpp_kw_1609, mozcpp_kw_1610, mozcpp_kw_1611, mozcpp_kw_1612, mozcpp_kw_1613,
    mozcpp_kw_1614, mozcpp_kw_1615, mozcpp_kw_1616, mozcpp_kw_1617, mozcpp_kw_1618,
    mozcpp_kw_1619]"

definition mozcpp_kw_cases_34 :: "(bool \<Rightarrow> codepoint \<Rightarrow> lex_case) list" where
  "mozcpp_kw_cases_34 = [mozcpp_kw_1620, mozcpp_kw_1621, mozcpp_kw_1622, mozcpp_kw_1623,
    mozcpp_kw_1624, mozcpp_kw_1625, mozcpp_kw_1626, mozcpp_kw_1627, mozcpp_kw_1628,
    mozcpp_kw_1629, mozcpp_kw_1630, mozcpp_kw_1631, mozcpp_kw_1632, mozcpp_kw_1633,
    mozcpp_kw_1634, mozcpp_kw_1635, mozcpp_kw_1636, mozcpp_kw_1637, mozcpp_kw_1638,
    mozcpp_kw_1639, mozcpp_kw_1640, mozcpp_kw_1641, mozcpp_kw_1642, mozcpp_kw_1643,
    mozcpp_kw_1644, mozcpp_kw_1645, mozcpp_kw_1646, mozcpp_kw_1647, mozcpp_kw_1648,
    mozcpp_kw_1649, mozcpp_kw_1650, mozcpp_kw_1651, mozcpp_kw_1652, mozcpp_kw_1653,
    mozcpp_kw_1654, mozcpp_kw_1655, mozcpp_kw_1656, mozcpp_kw_1657, mozcpp_kw_1658,
    mozcpp_kw_1659, mozcpp_kw_1660, mozcpp_kw_1661, mozcpp_kw_1662, mozcpp_kw_1663,
    mozcpp_kw_1664, mozcpp_kw_1665, mozcpp_kw_1666, mozcpp_kw_1667, mozcpp_kw_1668,
    mozcpp_kw_1669]"

definition mozcpp_kw_cases_35 :: "(bool \<Rightarrow> codepoint \<Rightarrow> lex_case) list" where
  "mozcpp_kw_cases_35 = [mozcpp_kw_1670, mozcpp_kw_1671, mozcpp_kw_1672, mozcpp_kw_1673,
    mozcpp_kw_1674, mozcpp_kw_1675, mozcpp_kw_1676, mozcpp_kw_1677, mozcpp_kw_1678,
    mozcpp_kw_1679, mozcpp_kw_1680, mozcpp_kw_1681, mozcpp_kw_1682, mozcpp_kw_1683,
    mozcpp_kw_1684, mozcpp_kw_1685, mozcpp_kw_1686, mozcpp_kw_1687, mozcpp_kw_1688,
    mozcpp_kw_1689, mozcpp_kw_1690, mozcpp_kw_1691, mozcpp_kw_1692, mozcpp_kw_1693,
    mozcpp_kw_1694, mozcpp_kw_1695, mozcpp_kw_1696, mozcpp_kw_1697, mozcpp_kw_1698,
    mozcpp_kw_1699, mozcpp_kw_1700, mozcpp_kw_1701, mozcpp_kw_1702, mozcpp_kw_1703,
    mozcpp_kw_1704, mozcpp_kw_1705, mozcpp_kw_1706, mozcpp_kw_1707, mozcpp_kw_1708,
    mozcpp_kw_1709, mozcpp_kw_1710, mozcpp_kw_1711, mozcpp_kw_1712, mozcpp_kw_1713,
    mozcpp_kw_1714, mozcpp_kw_1715, mozcpp_kw_1716, mozcpp_kw_1717, mozcpp_kw_1718,
    mozcpp_kw_1719]"

definition mozcpp_kw_cases_36 :: "(bool \<Rightarrow> codepoint \<Rightarrow> lex_case) list" where
  "mozcpp_kw_cases_36 = [mozcpp_kw_1720, mozcpp_kw_1721, mozcpp_kw_1722, mozcpp_kw_1723,
    mozcpp_kw_1724, mozcpp_kw_1725, mozcpp_kw_1726, mozcpp_kw_1727, mozcpp_kw_1728,
    mozcpp_kw_1729, mozcpp_kw_1730, mozcpp_kw_1731, mozcpp_kw_1732, mozcpp_kw_1733,
    mozcpp_kw_1734, mozcpp_kw_1735, mozcpp_kw_1736, mozcpp_kw_1737, mozcpp_kw_1738,
    mozcpp_kw_1739, mozcpp_kw_1740, mozcpp_kw_1741, mozcpp_kw_1742, mozcpp_kw_1743,
    mozcpp_kw_1744, mozcpp_kw_1745, mozcpp_kw_1746, mozcpp_kw_1747, mozcpp_kw_1748,
    mozcpp_kw_1749, mozcpp_kw_1750, mozcpp_kw_1751, mozcpp_kw_1752, mozcpp_kw_1753,
    mozcpp_kw_1754, mozcpp_kw_1755, mozcpp_kw_1756, mozcpp_kw_1757, mozcpp_kw_1758,
    mozcpp_kw_1759, mozcpp_kw_1760, mozcpp_kw_1761, mozcpp_kw_1762, mozcpp_kw_1763,
    mozcpp_kw_1764, mozcpp_kw_1765, mozcpp_kw_1766, mozcpp_kw_1767, mozcpp_kw_1768,
    mozcpp_kw_1769]"

definition mozcpp_kw_cases_37 :: "(bool \<Rightarrow> codepoint \<Rightarrow> lex_case) list" where
  "mozcpp_kw_cases_37 = [mozcpp_kw_1770, mozcpp_kw_1771, mozcpp_kw_1772, mozcpp_kw_1773,
    mozcpp_kw_1774, mozcpp_kw_1775, mozcpp_kw_1776, mozcpp_kw_1777, mozcpp_kw_1778,
    mozcpp_kw_1779, mozcpp_kw_1780, mozcpp_kw_1781, mozcpp_kw_1782, mozcpp_kw_1783,
    mozcpp_kw_1784, mozcpp_kw_1785, mozcpp_kw_1786, mozcpp_kw_1787, mozcpp_kw_1788,
    mozcpp_kw_1789, mozcpp_kw_1790, mozcpp_kw_1791, mozcpp_kw_1792, mozcpp_kw_1793,
    mozcpp_kw_1794, mozcpp_kw_1795, mozcpp_kw_1796, mozcpp_kw_1797, mozcpp_kw_1798,
    mozcpp_kw_1799, mozcpp_kw_1800, mozcpp_kw_1801, mozcpp_kw_1802, mozcpp_kw_1803,
    mozcpp_kw_1804, mozcpp_kw_1805, mozcpp_kw_1806, mozcpp_kw_1807, mozcpp_kw_1808,
    mozcpp_kw_1809, mozcpp_kw_1810, mozcpp_kw_1811, mozcpp_kw_1812, mozcpp_kw_1813,
    mozcpp_kw_1814, mozcpp_kw_1815, mozcpp_kw_1816, mozcpp_kw_1817]"

definition mozcpp_kw_cases :: "(bool \<Rightarrow> codepoint \<Rightarrow> lex_case) list" where
  "mozcpp_kw_cases = mozcpp_kw_cases_0 @ mozcpp_kw_cases_1 @ mozcpp_kw_cases_2 @
    mozcpp_kw_cases_3 @ mozcpp_kw_cases_4 @ mozcpp_kw_cases_5 @ mozcpp_kw_cases_6 @
    mozcpp_kw_cases_7 @ mozcpp_kw_cases_8 @ mozcpp_kw_cases_9 @ mozcpp_kw_cases_10 @
    mozcpp_kw_cases_11 @ mozcpp_kw_cases_12 @ mozcpp_kw_cases_13 @ mozcpp_kw_cases_14 @
    mozcpp_kw_cases_15 @ mozcpp_kw_cases_16 @ mozcpp_kw_cases_17 @ mozcpp_kw_cases_18 @
    mozcpp_kw_cases_19 @ mozcpp_kw_cases_20 @ mozcpp_kw_cases_21 @ mozcpp_kw_cases_22 @
    mozcpp_kw_cases_23 @ mozcpp_kw_cases_24 @ mozcpp_kw_cases_25 @ mozcpp_kw_cases_26 @
    mozcpp_kw_cases_27 @ mozcpp_kw_cases_28 @ mozcpp_kw_cases_29 @ mozcpp_kw_cases_30 @
    mozcpp_kw_cases_31 @ mozcpp_kw_cases_32 @ mozcpp_kw_cases_33 @ mozcpp_kw_cases_34 @
    mozcpp_kw_cases_35 @ mozcpp_kw_cases_36 @ mozcpp_kw_cases_37"

lemma mozcpp_kw_list:
  "mozcpp_kw_cases = [mozcpp_kw_0, mozcpp_kw_1, mozcpp_kw_2, mozcpp_kw_3, mozcpp_kw_4,
    mozcpp_kw_5, mozcpp_kw_6, mozcpp_kw_7, mozcpp_kw_8, mozcpp_kw_9, mozcpp_kw_10, mozcpp_kw_11,
    mozcpp_kw_12, mozcpp_kw_13, mozcpp_kw_14, mozcpp_kw_15, mozcpp_kw_16, mozcpp_kw_17,
    mozcpp_kw_18, mozcpp_kw_19, mozcpp_kw_20, mozcpp_kw_21, mozcpp_kw_22, mozcpp_kw_23,
    mozcpp_kw_24, mozcpp_kw_25, mozcpp_kw_26, mozcpp_kw_27, mozcpp_kw_28, mozcpp_kw_29,
    mozcpp_kw_30, mozcpp_kw_31, mozcpp_kw_32, mozcpp_kw_33, mozcpp_kw_34, mozcpp_kw_35,
    mozcpp_kw_36, mozcpp_kw_37, mozcpp_kw_38, mozcpp_kw_39, mozcpp_kw_40, mozcpp_kw_41,
    mozcpp_kw_42, mozcpp_kw_43, mozcpp_kw_44, mozcpp_kw_45, mozcpp_kw_46, mozcpp_kw_47,
    mozcpp_kw_48, mozcpp_kw_49, mozcpp_kw_50, mozcpp_kw_51, mozcpp_kw_52, mozcpp_kw_53,
    mozcpp_kw_54, mozcpp_kw_55, mozcpp_kw_56, mozcpp_kw_57, mozcpp_kw_58, mozcpp_kw_59,
    mozcpp_kw_60, mozcpp_kw_61, mozcpp_kw_62, mozcpp_kw_63, mozcpp_kw_64, mozcpp_kw_65,
    mozcpp_kw_66, mozcpp_kw_67, mozcpp_kw_68, mozcpp_kw_69, mozcpp_kw_70, mozcpp_kw_71,
    mozcpp_kw_72, mozcpp_kw_73, mozcpp_kw_74, mozcpp_kw_75, mozcpp_kw_76, mozcpp_kw_77,
    mozcpp_kw_78, mozcpp_kw_79, mozcpp_kw_80, mozcpp_kw_81, mozcpp_kw_82, mozcpp_kw_83,
    mozcpp_kw_84, mozcpp_kw_85, mozcpp_kw_86, mozcpp_kw_87, mozcpp_kw_88, mozcpp_kw_89,
    mozcpp_kw_90, mozcpp_kw_91, mozcpp_kw_92, mozcpp_kw_93, mozcpp_kw_94, mozcpp_kw_95,
    mozcpp_kw_96, mozcpp_kw_97, mozcpp_kw_98, mozcpp_kw_99, mozcpp_kw_100, mozcpp_kw_101,
    mozcpp_kw_102, mozcpp_kw_103, mozcpp_kw_104, mozcpp_kw_105, mozcpp_kw_106, mozcpp_kw_107,
    mozcpp_kw_108, mozcpp_kw_109, mozcpp_kw_110, mozcpp_kw_111, mozcpp_kw_112, mozcpp_kw_113,
    mozcpp_kw_114, mozcpp_kw_115, mozcpp_kw_116, mozcpp_kw_117, mozcpp_kw_118, mozcpp_kw_119,
    mozcpp_kw_120, mozcpp_kw_121, mozcpp_kw_122, mozcpp_kw_123, mozcpp_kw_124, mozcpp_kw_125,
    mozcpp_kw_126, mozcpp_kw_127, mozcpp_kw_128, mozcpp_kw_129, mozcpp_kw_130, mozcpp_kw_131,
    mozcpp_kw_132, mozcpp_kw_133, mozcpp_kw_134, mozcpp_kw_135, mozcpp_kw_136, mozcpp_kw_137,
    mozcpp_kw_138, mozcpp_kw_139, mozcpp_kw_140, mozcpp_kw_141, mozcpp_kw_142, mozcpp_kw_143,
    mozcpp_kw_144, mozcpp_kw_145, mozcpp_kw_146, mozcpp_kw_147, mozcpp_kw_148, mozcpp_kw_149,
    mozcpp_kw_150, mozcpp_kw_151, mozcpp_kw_152, mozcpp_kw_153, mozcpp_kw_154, mozcpp_kw_155,
    mozcpp_kw_156, mozcpp_kw_157, mozcpp_kw_158, mozcpp_kw_159, mozcpp_kw_160, mozcpp_kw_161,
    mozcpp_kw_162, mozcpp_kw_163, mozcpp_kw_164, mozcpp_kw_165, mozcpp_kw_166, mozcpp_kw_167,
    mozcpp_kw_168, mozcpp_kw_169, mozcpp_kw_170, mozcpp_kw_171, mozcpp_kw_172, mozcpp_kw_173,
    mozcpp_kw_174, mozcpp_kw_175, mozcpp_kw_176, mozcpp_kw_177, mozcpp_kw_178, mozcpp_kw_179,
    mozcpp_kw_180, mozcpp_kw_181, mozcpp_kw_182, mozcpp_kw_183, mozcpp_kw_184, mozcpp_kw_185,
    mozcpp_kw_186, mozcpp_kw_187, mozcpp_kw_188, mozcpp_kw_189, mozcpp_kw_190, mozcpp_kw_191,
    mozcpp_kw_192, mozcpp_kw_193, mozcpp_kw_194, mozcpp_kw_195, mozcpp_kw_196, mozcpp_kw_197,
    mozcpp_kw_198, mozcpp_kw_199, mozcpp_kw_200, mozcpp_kw_201, mozcpp_kw_202, mozcpp_kw_203,
    mozcpp_kw_204, mozcpp_kw_205, mozcpp_kw_206, mozcpp_kw_207, mozcpp_kw_208, mozcpp_kw_209,
    mozcpp_kw_210, mozcpp_kw_211, mozcpp_kw_212, mozcpp_kw_213, mozcpp_kw_214, mozcpp_kw_215,
    mozcpp_kw_216, mozcpp_kw_217, mozcpp_kw_218, mozcpp_kw_219, mozcpp_kw_220, mozcpp_kw_221,
    mozcpp_kw_222, mozcpp_kw_223, mozcpp_kw_224, mozcpp_kw_225, mozcpp_kw_226, mozcpp_kw_227,
    mozcpp_kw_228, mozcpp_kw_229, mozcpp_kw_230, mozcpp_kw_231, mozcpp_kw_232, mozcpp_kw_233,
    mozcpp_kw_234, mozcpp_kw_235, mozcpp_kw_236, mozcpp_kw_237, mozcpp_kw_238, mozcpp_kw_239,
    mozcpp_kw_240, mozcpp_kw_241, mozcpp_kw_242, mozcpp_kw_243, mozcpp_kw_244, mozcpp_kw_245,
    mozcpp_kw_246, mozcpp_kw_247, mozcpp_kw_248, mozcpp_kw_249, mozcpp_kw_250, mozcpp_kw_251,
    mozcpp_kw_252, mozcpp_kw_253, mozcpp_kw_254, mozcpp_kw_255, mozcpp_kw_256, mozcpp_kw_257,
    mozcpp_kw_258, mozcpp_kw_259, mozcpp_kw_260, mozcpp_kw_261, mozcpp_kw_262, mozcpp_kw_263,
    mozcpp_kw_264, mozcpp_kw_265, mozcpp_kw_266, mozcpp_kw_267, mozcpp_kw_268, mozcpp_kw_269,
    mozcpp_kw_270, mozcpp_kw_271, mozcpp_kw_272, mozcpp_kw_273, mozcpp_kw_274, mozcpp_kw_275,
    mozcpp_kw_276, mozcpp_kw_277, mozcpp_kw_278, mozcpp_kw_279, mozcpp_kw_280, mozcpp_kw_281,
    mozcpp_kw_282, mozcpp_kw_283, mozcpp_kw_284, mozcpp_kw_285, mozcpp_kw_286, mozcpp_kw_287,
    mozcpp_kw_288, mozcpp_kw_289, mozcpp_kw_290, mozcpp_kw_291, mozcpp_kw_292, mozcpp_kw_293,
    mozcpp_kw_294, mozcpp_kw_295, mozcpp_kw_296, mozcpp_kw_297, mozcpp_kw_298, mozcpp_kw_299,
    mozcpp_kw_300, mozcpp_kw_301, mozcpp_kw_302, mozcpp_kw_303, mozcpp_kw_304, mozcpp_kw_305,
    mozcpp_kw_306, mozcpp_kw_307, mozcpp_kw_308, mozcpp_kw_309, mozcpp_kw_310, mozcpp_kw_311,
    mozcpp_kw_312, mozcpp_kw_313, mozcpp_kw_314, mozcpp_kw_315, mozcpp_kw_316, mozcpp_kw_317,
    mozcpp_kw_318, mozcpp_kw_319, mozcpp_kw_320, mozcpp_kw_321, mozcpp_kw_322, mozcpp_kw_323,
    mozcpp_kw_324, mozcpp_kw_325, mozcpp_kw_326, mozcpp_kw_327, mozcpp_kw_328, mozcpp_kw_329,
    mozcpp_kw_330, mozcpp_kw_331, mozcpp_kw_332, mozcpp_kw_333, mozcpp_kw_334, mozcpp_kw_335,
    mozcpp_kw_336, mozcpp_kw_337, mozcpp_kw_338, mozcpp_kw_339, mozcpp_kw_340, mozcpp_kw_341,
    mozcpp_kw_342, mozcpp_kw_343, mozcpp_kw_344, mozcpp_kw_345, mozcpp_kw_346, mozcpp_kw_347,
    mozcpp_kw_348, mozcpp_kw_349, mozcpp_kw_350, mozcpp_kw_351, mozcpp_kw_352, mozcpp_kw_353,
    mozcpp_kw_354, mozcpp_kw_355, mozcpp_kw_356, mozcpp_kw_357, mozcpp_kw_358, mozcpp_kw_359,
    mozcpp_kw_360, mozcpp_kw_361, mozcpp_kw_362, mozcpp_kw_363, mozcpp_kw_364, mozcpp_kw_365,
    mozcpp_kw_366, mozcpp_kw_367, mozcpp_kw_368, mozcpp_kw_369, mozcpp_kw_370, mozcpp_kw_371,
    mozcpp_kw_372, mozcpp_kw_373, mozcpp_kw_374, mozcpp_kw_375, mozcpp_kw_376, mozcpp_kw_377,
    mozcpp_kw_378, mozcpp_kw_379, mozcpp_kw_380, mozcpp_kw_381, mozcpp_kw_382, mozcpp_kw_383,
    mozcpp_kw_384, mozcpp_kw_385, mozcpp_kw_386, mozcpp_kw_387, mozcpp_kw_388, mozcpp_kw_389,
    mozcpp_kw_390, mozcpp_kw_391, mozcpp_kw_392, mozcpp_kw_393, mozcpp_kw_394, mozcpp_kw_395,
    mozcpp_kw_396, mozcpp_kw_397, mozcpp_kw_398, mozcpp_kw_399, mozcpp_kw_400, mozcpp_kw_401,
    mozcpp_kw_402, mozcpp_kw_403, mozcpp_kw_404, mozcpp_kw_405, mozcpp_kw_406, mozcpp_kw_407,
    mozcpp_kw_408, mozcpp_kw_409, mozcpp_kw_410, mozcpp_kw_411, mozcpp_kw_412, mozcpp_kw_413,
    mozcpp_kw_414, mozcpp_kw_415, mozcpp_kw_416, mozcpp_kw_417, mozcpp_kw_418, mozcpp_kw_419,
    mozcpp_kw_420, mozcpp_kw_421, mozcpp_kw_422, mozcpp_kw_423, mozcpp_kw_424, mozcpp_kw_425,
    mozcpp_kw_426, mozcpp_kw_427, mozcpp_kw_428, mozcpp_kw_429, mozcpp_kw_430, mozcpp_kw_431,
    mozcpp_kw_432, mozcpp_kw_433, mozcpp_kw_434, mozcpp_kw_435, mozcpp_kw_436, mozcpp_kw_437,
    mozcpp_kw_438, mozcpp_kw_439, mozcpp_kw_440, mozcpp_kw_441, mozcpp_kw_442, mozcpp_kw_443,
    mozcpp_kw_444, mozcpp_kw_445, mozcpp_kw_446, mozcpp_kw_447, mozcpp_kw_448, mozcpp_kw_449,
    mozcpp_kw_450, mozcpp_kw_451, mozcpp_kw_452, mozcpp_kw_453, mozcpp_kw_454, mozcpp_kw_455,
    mozcpp_kw_456, mozcpp_kw_457, mozcpp_kw_458, mozcpp_kw_459, mozcpp_kw_460, mozcpp_kw_461,
    mozcpp_kw_462, mozcpp_kw_463, mozcpp_kw_464, mozcpp_kw_465, mozcpp_kw_466, mozcpp_kw_467,
    mozcpp_kw_468, mozcpp_kw_469, mozcpp_kw_470, mozcpp_kw_471, mozcpp_kw_472, mozcpp_kw_473,
    mozcpp_kw_474, mozcpp_kw_475, mozcpp_kw_476, mozcpp_kw_477, mozcpp_kw_478, mozcpp_kw_479,
    mozcpp_kw_480, mozcpp_kw_481, mozcpp_kw_482, mozcpp_kw_483, mozcpp_kw_484, mozcpp_kw_485,
    mozcpp_kw_486, mozcpp_kw_487, mozcpp_kw_488, mozcpp_kw_489, mozcpp_kw_490, mozcpp_kw_491,
    mozcpp_kw_492, mozcpp_kw_493, mozcpp_kw_494, mozcpp_kw_495, mozcpp_kw_496, mozcpp_kw_497,
    mozcpp_kw_498, mozcpp_kw_499, mozcpp_kw_500, mozcpp_kw_501, mozcpp_kw_502, mozcpp_kw_503,
    mozcpp_kw_504, mozcpp_kw_505, mozcpp_kw_506, mozcpp_kw_507, mozcpp_kw_508, mozcpp_kw_509,
    mozcpp_kw_510, mozcpp_kw_511, mozcpp_kw_512, mozcpp_kw_513, mozcpp_kw_514, mozcpp_kw_515,
    mozcpp_kw_516, mozcpp_kw_517, mozcpp_kw_518, mozcpp_kw_519, mozcpp_kw_520, mozcpp_kw_521,
    mozcpp_kw_522, mozcpp_kw_523, mozcpp_kw_524, mozcpp_kw_525, mozcpp_kw_526, mozcpp_kw_527,
    mozcpp_kw_528, mozcpp_kw_529, mozcpp_kw_530, mozcpp_kw_531, mozcpp_kw_532, mozcpp_kw_533,
    mozcpp_kw_534, mozcpp_kw_535, mozcpp_kw_536, mozcpp_kw_537, mozcpp_kw_538, mozcpp_kw_539,
    mozcpp_kw_540, mozcpp_kw_541, mozcpp_kw_542, mozcpp_kw_543, mozcpp_kw_544, mozcpp_kw_545,
    mozcpp_kw_546, mozcpp_kw_547, mozcpp_kw_548, mozcpp_kw_549, mozcpp_kw_550, mozcpp_kw_551,
    mozcpp_kw_552, mozcpp_kw_553, mozcpp_kw_554, mozcpp_kw_555, mozcpp_kw_556, mozcpp_kw_557,
    mozcpp_kw_558, mozcpp_kw_559, mozcpp_kw_560, mozcpp_kw_561, mozcpp_kw_562, mozcpp_kw_563,
    mozcpp_kw_564, mozcpp_kw_565, mozcpp_kw_566, mozcpp_kw_567, mozcpp_kw_568, mozcpp_kw_569,
    mozcpp_kw_570, mozcpp_kw_571, mozcpp_kw_572, mozcpp_kw_573, mozcpp_kw_574, mozcpp_kw_575,
    mozcpp_kw_576, mozcpp_kw_577, mozcpp_kw_578, mozcpp_kw_579, mozcpp_kw_580, mozcpp_kw_581,
    mozcpp_kw_582, mozcpp_kw_583, mozcpp_kw_584, mozcpp_kw_585, mozcpp_kw_586, mozcpp_kw_587,
    mozcpp_kw_588, mozcpp_kw_589, mozcpp_kw_590, mozcpp_kw_591, mozcpp_kw_592, mozcpp_kw_593,
    mozcpp_kw_594, mozcpp_kw_595, mozcpp_kw_596, mozcpp_kw_597, mozcpp_kw_598, mozcpp_kw_599,
    mozcpp_kw_600, mozcpp_kw_601, mozcpp_kw_602, mozcpp_kw_603, mozcpp_kw_604, mozcpp_kw_605,
    mozcpp_kw_606, mozcpp_kw_607, mozcpp_kw_608, mozcpp_kw_609, mozcpp_kw_610, mozcpp_kw_611,
    mozcpp_kw_612, mozcpp_kw_613, mozcpp_kw_614, mozcpp_kw_615, mozcpp_kw_616, mozcpp_kw_617,
    mozcpp_kw_618, mozcpp_kw_619, mozcpp_kw_620, mozcpp_kw_621, mozcpp_kw_622, mozcpp_kw_623,
    mozcpp_kw_624, mozcpp_kw_625, mozcpp_kw_626, mozcpp_kw_627, mozcpp_kw_628, mozcpp_kw_629,
    mozcpp_kw_630, mozcpp_kw_631, mozcpp_kw_632, mozcpp_kw_633, mozcpp_kw_634, mozcpp_kw_635,
    mozcpp_kw_636, mozcpp_kw_637, mozcpp_kw_638, mozcpp_kw_639, mozcpp_kw_640, mozcpp_kw_641,
    mozcpp_kw_642, mozcpp_kw_643, mozcpp_kw_644, mozcpp_kw_645, mozcpp_kw_646, mozcpp_kw_647,
    mozcpp_kw_648, mozcpp_kw_649, mozcpp_kw_650, mozcpp_kw_651, mozcpp_kw_652, mozcpp_kw_653,
    mozcpp_kw_654, mozcpp_kw_655, mozcpp_kw_656, mozcpp_kw_657, mozcpp_kw_658, mozcpp_kw_659,
    mozcpp_kw_660, mozcpp_kw_661, mozcpp_kw_662, mozcpp_kw_663, mozcpp_kw_664, mozcpp_kw_665,
    mozcpp_kw_666, mozcpp_kw_667, mozcpp_kw_668, mozcpp_kw_669, mozcpp_kw_670, mozcpp_kw_671,
    mozcpp_kw_672, mozcpp_kw_673, mozcpp_kw_674, mozcpp_kw_675, mozcpp_kw_676, mozcpp_kw_677,
    mozcpp_kw_678, mozcpp_kw_679, mozcpp_kw_680, mozcpp_kw_681, mozcpp_kw_682, mozcpp_kw_683,
    mozcpp_kw_684, mozcpp_kw_685, mozcpp_kw_686, mozcpp_kw_687, mozcpp_kw_688, mozcpp_kw_689,
    mozcpp_kw_690, mozcpp_kw_691, mozcpp_kw_692, mozcpp_kw_693, mozcpp_kw_694, mozcpp_kw_695,
    mozcpp_kw_696, mozcpp_kw_697, mozcpp_kw_698, mozcpp_kw_699, mozcpp_kw_700, mozcpp_kw_701,
    mozcpp_kw_702, mozcpp_kw_703, mozcpp_kw_704, mozcpp_kw_705, mozcpp_kw_706, mozcpp_kw_707,
    mozcpp_kw_708, mozcpp_kw_709, mozcpp_kw_710, mozcpp_kw_711, mozcpp_kw_712, mozcpp_kw_713,
    mozcpp_kw_714, mozcpp_kw_715, mozcpp_kw_716, mozcpp_kw_717, mozcpp_kw_718, mozcpp_kw_719,
    mozcpp_kw_720, mozcpp_kw_721, mozcpp_kw_722, mozcpp_kw_723, mozcpp_kw_724, mozcpp_kw_725,
    mozcpp_kw_726, mozcpp_kw_727, mozcpp_kw_728, mozcpp_kw_729, mozcpp_kw_730, mozcpp_kw_731,
    mozcpp_kw_732, mozcpp_kw_733, mozcpp_kw_734, mozcpp_kw_735, mozcpp_kw_736, mozcpp_kw_737,
    mozcpp_kw_738, mozcpp_kw_739, mozcpp_kw_740, mozcpp_kw_741, mozcpp_kw_742, mozcpp_kw_743,
    mozcpp_kw_744, mozcpp_kw_745, mozcpp_kw_746, mozcpp_kw_747, mozcpp_kw_748, mozcpp_kw_749,
    mozcpp_kw_750, mozcpp_kw_751, mozcpp_kw_752, mozcpp_kw_753, mozcpp_kw_754, mozcpp_kw_755,
    mozcpp_kw_756, mozcpp_kw_757, mozcpp_kw_758, mozcpp_kw_759, mozcpp_kw_760, mozcpp_kw_761,
    mozcpp_kw_762, mozcpp_kw_763, mozcpp_kw_764, mozcpp_kw_765, mozcpp_kw_766, mozcpp_kw_767,
    mozcpp_kw_768, mozcpp_kw_769, mozcpp_kw_770, mozcpp_kw_771, mozcpp_kw_772, mozcpp_kw_773,
    mozcpp_kw_774, mozcpp_kw_775, mozcpp_kw_776, mozcpp_kw_777, mozcpp_kw_778, mozcpp_kw_779,
    mozcpp_kw_780, mozcpp_kw_781, mozcpp_kw_782, mozcpp_kw_783, mozcpp_kw_784, mozcpp_kw_785,
    mozcpp_kw_786, mozcpp_kw_787, mozcpp_kw_788, mozcpp_kw_789, mozcpp_kw_790, mozcpp_kw_791,
    mozcpp_kw_792, mozcpp_kw_793, mozcpp_kw_794, mozcpp_kw_795, mozcpp_kw_796, mozcpp_kw_797,
    mozcpp_kw_798, mozcpp_kw_799, mozcpp_kw_800, mozcpp_kw_801, mozcpp_kw_802, mozcpp_kw_803,
    mozcpp_kw_804, mozcpp_kw_805, mozcpp_kw_806, mozcpp_kw_807, mozcpp_kw_808, mozcpp_kw_809,
    mozcpp_kw_810, mozcpp_kw_811, mozcpp_kw_812, mozcpp_kw_813, mozcpp_kw_814, mozcpp_kw_815,
    mozcpp_kw_816, mozcpp_kw_817, mozcpp_kw_818, mozcpp_kw_819, mozcpp_kw_820, mozcpp_kw_821,
    mozcpp_kw_822, mozcpp_kw_823, mozcpp_kw_824, mozcpp_kw_825, mozcpp_kw_826, mozcpp_kw_827,
    mozcpp_kw_828, mozcpp_kw_829, mozcpp_kw_830, mozcpp_kw_831, mozcpp_kw_832, mozcpp_kw_833,
    mozcpp_kw_834, mozcpp_kw_835, mozcpp_kw_836, mozcpp_kw_837, mozcpp_kw_838, mozcpp_kw_839,
    mozcpp_kw_840, mozcpp_kw_841, mozcpp_kw_842, mozcpp_kw_843, mozcpp_kw_844, mozcpp_kw_845,
    mozcpp_kw_846, mozcpp_kw_847, mozcpp_kw_848, mozcpp_kw_849, mozcpp_kw_850, mozcpp_kw_851,
    mozcpp_kw_852, mozcpp_kw_853, mozcpp_kw_854, mozcpp_kw_855, mozcpp_kw_856, mozcpp_kw_857,
    mozcpp_kw_858, mozcpp_kw_859, mozcpp_kw_860, mozcpp_kw_861, mozcpp_kw_862, mozcpp_kw_863,
    mozcpp_kw_864, mozcpp_kw_865, mozcpp_kw_866, mozcpp_kw_867, mozcpp_kw_868, mozcpp_kw_869,
    mozcpp_kw_870, mozcpp_kw_871, mozcpp_kw_872, mozcpp_kw_873, mozcpp_kw_874, mozcpp_kw_875,
    mozcpp_kw_876, mozcpp_kw_877, mozcpp_kw_878, mozcpp_kw_879, mozcpp_kw_880, mozcpp_kw_881,
    mozcpp_kw_882, mozcpp_kw_883, mozcpp_kw_884, mozcpp_kw_885, mozcpp_kw_886, mozcpp_kw_887,
    mozcpp_kw_888, mozcpp_kw_889, mozcpp_kw_890, mozcpp_kw_891, mozcpp_kw_892, mozcpp_kw_893,
    mozcpp_kw_894, mozcpp_kw_895, mozcpp_kw_896, mozcpp_kw_897, mozcpp_kw_898, mozcpp_kw_899,
    mozcpp_kw_900, mozcpp_kw_901, mozcpp_kw_902, mozcpp_kw_903, mozcpp_kw_904, mozcpp_kw_905,
    mozcpp_kw_906, mozcpp_kw_907, mozcpp_kw_908, mozcpp_kw_909, mozcpp_kw_910, mozcpp_kw_911,
    mozcpp_kw_912, mozcpp_kw_913, mozcpp_kw_914, mozcpp_kw_915, mozcpp_kw_916, mozcpp_kw_917,
    mozcpp_kw_918, mozcpp_kw_919, mozcpp_kw_920, mozcpp_kw_921, mozcpp_kw_922, mozcpp_kw_923,
    mozcpp_kw_924, mozcpp_kw_925, mozcpp_kw_926, mozcpp_kw_927, mozcpp_kw_928, mozcpp_kw_929,
    mozcpp_kw_930, mozcpp_kw_931, mozcpp_kw_932, mozcpp_kw_933, mozcpp_kw_934, mozcpp_kw_935,
    mozcpp_kw_936, mozcpp_kw_937, mozcpp_kw_938, mozcpp_kw_939, mozcpp_kw_940, mozcpp_kw_941,
    mozcpp_kw_942, mozcpp_kw_943, mozcpp_kw_944, mozcpp_kw_945, mozcpp_kw_946, mozcpp_kw_947,
    mozcpp_kw_948, mozcpp_kw_949, mozcpp_kw_950, mozcpp_kw_951, mozcpp_kw_952, mozcpp_kw_953,
    mozcpp_kw_954, mozcpp_kw_955, mozcpp_kw_956, mozcpp_kw_957, mozcpp_kw_958, mozcpp_kw_959,
    mozcpp_kw_960, mozcpp_kw_961, mozcpp_kw_962, mozcpp_kw_963, mozcpp_kw_964, mozcpp_kw_965,
    mozcpp_kw_966, mozcpp_kw_967, mozcpp_kw_968, mozcpp_kw_969, mozcpp_kw_970, mozcpp_kw_971,
    mozcpp_kw_972, mozcpp_kw_973, mozcpp_kw_974, mozcpp_kw_975, mozcpp_kw_976, mozcpp_kw_977,
    mozcpp_kw_978, mozcpp_kw_979, mozcpp_kw_980, mozcpp_kw_981, mozcpp_kw_982, mozcpp_kw_983,
    mozcpp_kw_984, mozcpp_kw_985, mozcpp_kw_986, mozcpp_kw_987, mozcpp_kw_988, mozcpp_kw_989,
    mozcpp_kw_990, mozcpp_kw_991, mozcpp_kw_992, mozcpp_kw_993, mozcpp_kw_994, mozcpp_kw_995,
    mozcpp_kw_996, mozcpp_kw_997, mozcpp_kw_998, mozcpp_kw_999, mozcpp_kw_1000, mozcpp_kw_1001,
    mozcpp_kw_1002, mozcpp_kw_1003, mozcpp_kw_1004, mozcpp_kw_1005, mozcpp_kw_1006,
    mozcpp_kw_1007, mozcpp_kw_1008, mozcpp_kw_1009, mozcpp_kw_1010, mozcpp_kw_1011,
    mozcpp_kw_1012, mozcpp_kw_1013, mozcpp_kw_1014, mozcpp_kw_1015, mozcpp_kw_1016,
    mozcpp_kw_1017, mozcpp_kw_1018, mozcpp_kw_1019, mozcpp_kw_1020, mozcpp_kw_1021,
    mozcpp_kw_1022, mozcpp_kw_1023, mozcpp_kw_1024, mozcpp_kw_1025, mozcpp_kw_1026,
    mozcpp_kw_1027, mozcpp_kw_1028, mozcpp_kw_1029, mozcpp_kw_1030, mozcpp_kw_1031,
    mozcpp_kw_1032, mozcpp_kw_1033, mozcpp_kw_1034, mozcpp_kw_1035, mozcpp_kw_1036,
    mozcpp_kw_1037, mozcpp_kw_1038, mozcpp_kw_1039, mozcpp_kw_1040, mozcpp_kw_1041,
    mozcpp_kw_1042, mozcpp_kw_1043, mozcpp_kw_1044, mozcpp_kw_1045, mozcpp_kw_1046,
    mozcpp_kw_1047, mozcpp_kw_1048, mozcpp_kw_1049, mozcpp_kw_1050, mozcpp_kw_1051,
    mozcpp_kw_1052, mozcpp_kw_1053, mozcpp_kw_1054, mozcpp_kw_1055, mozcpp_kw_1056,
    mozcpp_kw_1057, mozcpp_kw_1058, mozcpp_kw_1059, mozcpp_kw_1060, mozcpp_kw_1061,
    mozcpp_kw_1062, mozcpp_kw_1063, mozcpp_kw_1064, mozcpp_kw_1065, mozcpp_kw_1066,
    mozcpp_kw_1067, mozcpp_kw_1068, mozcpp_kw_1069, mozcpp_kw_1070, mozcpp_kw_1071,
    mozcpp_kw_1072, mozcpp_kw_1073, mozcpp_kw_1074, mozcpp_kw_1075, mozcpp_kw_1076,
    mozcpp_kw_1077, mozcpp_kw_1078, mozcpp_kw_1079, mozcpp_kw_1080, mozcpp_kw_1081,
    mozcpp_kw_1082, mozcpp_kw_1083, mozcpp_kw_1084, mozcpp_kw_1085, mozcpp_kw_1086,
    mozcpp_kw_1087, mozcpp_kw_1088, mozcpp_kw_1089, mozcpp_kw_1090, mozcpp_kw_1091,
    mozcpp_kw_1092, mozcpp_kw_1093, mozcpp_kw_1094, mozcpp_kw_1095, mozcpp_kw_1096,
    mozcpp_kw_1097, mozcpp_kw_1098, mozcpp_kw_1099, mozcpp_kw_1100, mozcpp_kw_1101,
    mozcpp_kw_1102, mozcpp_kw_1103, mozcpp_kw_1104, mozcpp_kw_1105, mozcpp_kw_1106,
    mozcpp_kw_1107, mozcpp_kw_1108, mozcpp_kw_1109, mozcpp_kw_1110, mozcpp_kw_1111,
    mozcpp_kw_1112, mozcpp_kw_1113, mozcpp_kw_1114, mozcpp_kw_1115, mozcpp_kw_1116,
    mozcpp_kw_1117, mozcpp_kw_1118, mozcpp_kw_1119, mozcpp_kw_1120, mozcpp_kw_1121,
    mozcpp_kw_1122, mozcpp_kw_1123, mozcpp_kw_1124, mozcpp_kw_1125, mozcpp_kw_1126,
    mozcpp_kw_1127, mozcpp_kw_1128, mozcpp_kw_1129, mozcpp_kw_1130, mozcpp_kw_1131,
    mozcpp_kw_1132, mozcpp_kw_1133, mozcpp_kw_1134, mozcpp_kw_1135, mozcpp_kw_1136,
    mozcpp_kw_1137, mozcpp_kw_1138, mozcpp_kw_1139, mozcpp_kw_1140, mozcpp_kw_1141,
    mozcpp_kw_1142, mozcpp_kw_1143, mozcpp_kw_1144, mozcpp_kw_1145, mozcpp_kw_1146,
    mozcpp_kw_1147, mozcpp_kw_1148, mozcpp_kw_1149, mozcpp_kw_1150, mozcpp_kw_1151,
    mozcpp_kw_1152, mozcpp_kw_1153, mozcpp_kw_1154, mozcpp_kw_1155, mozcpp_kw_1156,
    mozcpp_kw_1157, mozcpp_kw_1158, mozcpp_kw_1159, mozcpp_kw_1160, mozcpp_kw_1161,
    mozcpp_kw_1162, mozcpp_kw_1163, mozcpp_kw_1164, mozcpp_kw_1165, mozcpp_kw_1166,
    mozcpp_kw_1167, mozcpp_kw_1168, mozcpp_kw_1169, mozcpp_kw_1170, mozcpp_kw_1171,
    mozcpp_kw_1172, mozcpp_kw_1173, mozcpp_kw_1174, mozcpp_kw_1175, mozcpp_kw_1176,
    mozcpp_kw_1177, mozcpp_kw_1178, mozcpp_kw_1179, mozcpp_kw_1180, mozcpp_kw_1181,
    mozcpp_kw_1182, mozcpp_kw_1183, mozcpp_kw_1184, mozcpp_kw_1185, mozcpp_kw_1186,
    mozcpp_kw_1187, mozcpp_kw_1188, mozcpp_kw_1189, mozcpp_kw_1190, mozcpp_kw_1191,
    mozcpp_kw_1192, mozcpp_kw_1193, mozcpp_kw_1194, mozcpp_kw_1195, mozcpp_kw_1196,
    mozcpp_kw_1197, mozcpp_kw_1198, mozcpp_kw_1199, mozcpp_kw_1200, mozcpp_kw_1201,
    mozcpp_kw_1202, mozcpp_kw_1203, mozcpp_kw_1204, mozcpp_kw_1205, mozcpp_kw_1206,
    mozcpp_kw_1207, mozcpp_kw_1208, mozcpp_kw_1209, mozcpp_kw_1210, mozcpp_kw_1211,
    mozcpp_kw_1212, mozcpp_kw_1213, mozcpp_kw_1214, mozcpp_kw_1215, mozcpp_kw_1216,
    mozcpp_kw_1217, mozcpp_kw_1218, mozcpp_kw_1219, mozcpp_kw_1220, mozcpp_kw_1221,
    mozcpp_kw_1222, mozcpp_kw_1223, mozcpp_kw_1224, mozcpp_kw_1225, mozcpp_kw_1226,
    mozcpp_kw_1227, mozcpp_kw_1228, mozcpp_kw_1229, mozcpp_kw_1230, mozcpp_kw_1231,
    mozcpp_kw_1232, mozcpp_kw_1233, mozcpp_kw_1234, mozcpp_kw_1235, mozcpp_kw_1236,
    mozcpp_kw_1237, mozcpp_kw_1238, mozcpp_kw_1239, mozcpp_kw_1240, mozcpp_kw_1241,
    mozcpp_kw_1242, mozcpp_kw_1243, mozcpp_kw_1244, mozcpp_kw_1245, mozcpp_kw_1246,
    mozcpp_kw_1247, mozcpp_kw_1248, mozcpp_kw_1249, mozcpp_kw_1250, mozcpp_kw_1251,
    mozcpp_kw_1252, mozcpp_kw_1253, mozcpp_kw_1254, mozcpp_kw_1255, mozcpp_kw_1256,
    mozcpp_kw_1257, mozcpp_kw_1258, mozcpp_kw_1259, mozcpp_kw_1260, mozcpp_kw_1261,
    mozcpp_kw_1262, mozcpp_kw_1263, mozcpp_kw_1264, mozcpp_kw_1265, mozcpp_kw_1266,
    mozcpp_kw_1267, mozcpp_kw_1268, mozcpp_kw_1269, mozcpp_kw_1270, mozcpp_kw_1271,
    mozcpp_kw_1272, mozcpp_kw_1273, mozcpp_kw_1274, mozcpp_kw_1275, mozcpp_kw_1276,
    mozcpp_kw_1277, mozcpp_kw_1278, mozcpp_kw_1279, mozcpp_kw_1280, mozcpp_kw_1281,
    mozcpp_kw_1282, mozcpp_kw_1283, mozcpp_kw_1284, mozcpp_kw_1285, mozcpp_kw_1286,
    mozcpp_kw_1287, mozcpp_kw_1288, mozcpp_kw_1289, mozcpp_kw_1290, mozcpp_kw_1291,
    mozcpp_kw_1292, mozcpp_kw_1293, mozcpp_kw_1294, mozcpp_kw_1295, mozcpp_kw_1296,
    mozcpp_kw_1297, mozcpp_kw_1298, mozcpp_kw_1299, mozcpp_kw_1300, mozcpp_kw_1301,
    mozcpp_kw_1302, mozcpp_kw_1303, mozcpp_kw_1304, mozcpp_kw_1305, mozcpp_kw_1306,
    mozcpp_kw_1307, mozcpp_kw_1308, mozcpp_kw_1309, mozcpp_kw_1310, mozcpp_kw_1311,
    mozcpp_kw_1312, mozcpp_kw_1313, mozcpp_kw_1314, mozcpp_kw_1315, mozcpp_kw_1316,
    mozcpp_kw_1317, mozcpp_kw_1318, mozcpp_kw_1319, mozcpp_kw_1320, mozcpp_kw_1321,
    mozcpp_kw_1322, mozcpp_kw_1323, mozcpp_kw_1324, mozcpp_kw_1325, mozcpp_kw_1326,
    mozcpp_kw_1327, mozcpp_kw_1328, mozcpp_kw_1329, mozcpp_kw_1330, mozcpp_kw_1331,
    mozcpp_kw_1332, mozcpp_kw_1333, mozcpp_kw_1334, mozcpp_kw_1335, mozcpp_kw_1336,
    mozcpp_kw_1337, mozcpp_kw_1338, mozcpp_kw_1339, mozcpp_kw_1340, mozcpp_kw_1341,
    mozcpp_kw_1342, mozcpp_kw_1343, mozcpp_kw_1344, mozcpp_kw_1345, mozcpp_kw_1346,
    mozcpp_kw_1347, mozcpp_kw_1348, mozcpp_kw_1349, mozcpp_kw_1350, mozcpp_kw_1351,
    mozcpp_kw_1352, mozcpp_kw_1353, mozcpp_kw_1354, mozcpp_kw_1355, mozcpp_kw_1356,
    mozcpp_kw_1357, mozcpp_kw_1358, mozcpp_kw_1359, mozcpp_kw_1360, mozcpp_kw_1361,
    mozcpp_kw_1362, mozcpp_kw_1363, mozcpp_kw_1364, mozcpp_kw_1365, mozcpp_kw_1366,
    mozcpp_kw_1367, mozcpp_kw_1368, mozcpp_kw_1369, mozcpp_kw_1370, mozcpp_kw_1371,
    mozcpp_kw_1372, mozcpp_kw_1373, mozcpp_kw_1374, mozcpp_kw_1375, mozcpp_kw_1376,
    mozcpp_kw_1377, mozcpp_kw_1378, mozcpp_kw_1379, mozcpp_kw_1380, mozcpp_kw_1381,
    mozcpp_kw_1382, mozcpp_kw_1383, mozcpp_kw_1384, mozcpp_kw_1385, mozcpp_kw_1386,
    mozcpp_kw_1387, mozcpp_kw_1388, mozcpp_kw_1389, mozcpp_kw_1390, mozcpp_kw_1391,
    mozcpp_kw_1392, mozcpp_kw_1393, mozcpp_kw_1394, mozcpp_kw_1395, mozcpp_kw_1396,
    mozcpp_kw_1397, mozcpp_kw_1398, mozcpp_kw_1399, mozcpp_kw_1400, mozcpp_kw_1401,
    mozcpp_kw_1402, mozcpp_kw_1403, mozcpp_kw_1404, mozcpp_kw_1405, mozcpp_kw_1406,
    mozcpp_kw_1407, mozcpp_kw_1408, mozcpp_kw_1409, mozcpp_kw_1410, mozcpp_kw_1411,
    mozcpp_kw_1412, mozcpp_kw_1413, mozcpp_kw_1414, mozcpp_kw_1415, mozcpp_kw_1416,
    mozcpp_kw_1417, mozcpp_kw_1418, mozcpp_kw_1419, mozcpp_kw_1420, mozcpp_kw_1421,
    mozcpp_kw_1422, mozcpp_kw_1423, mozcpp_kw_1424, mozcpp_kw_1425, mozcpp_kw_1426,
    mozcpp_kw_1427, mozcpp_kw_1428, mozcpp_kw_1429, mozcpp_kw_1430, mozcpp_kw_1431,
    mozcpp_kw_1432, mozcpp_kw_1433, mozcpp_kw_1434, mozcpp_kw_1435, mozcpp_kw_1436,
    mozcpp_kw_1437, mozcpp_kw_1438, mozcpp_kw_1439, mozcpp_kw_1440, mozcpp_kw_1441,
    mozcpp_kw_1442, mozcpp_kw_1443, mozcpp_kw_1444, mozcpp_kw_1445, mozcpp_kw_1446,
    mozcpp_kw_1447, mozcpp_kw_1448, mozcpp_kw_1449, mozcpp_kw_1450, mozcpp_kw_1451,
    mozcpp_kw_1452, mozcpp_kw_1453, mozcpp_kw_1454, mozcpp_kw_1455, mozcpp_kw_1456,
    mozcpp_kw_1457, mozcpp_kw_1458, mozcpp_kw_1459, mozcpp_kw_1460, mozcpp_kw_1461,
    mozcpp_kw_1462, mozcpp_kw_1463, mozcpp_kw_1464, mozcpp_kw_1465, mozcpp_kw_1466,
    mozcpp_kw_1467, mozcpp_kw_1468, mozcpp_kw_1469, mozcpp_kw_1470, mozcpp_kw_1471,
    mozcpp_kw_1472, mozcpp_kw_1473, mozcpp_kw_1474, mozcpp_kw_1475, mozcpp_kw_1476,
    mozcpp_kw_1477, mozcpp_kw_1478, mozcpp_kw_1479, mozcpp_kw_1480, mozcpp_kw_1481,
    mozcpp_kw_1482, mozcpp_kw_1483, mozcpp_kw_1484, mozcpp_kw_1485, mozcpp_kw_1486,
    mozcpp_kw_1487, mozcpp_kw_1488, mozcpp_kw_1489, mozcpp_kw_1490, mozcpp_kw_1491,
    mozcpp_kw_1492, mozcpp_kw_1493, mozcpp_kw_1494, mozcpp_kw_1495, mozcpp_kw_1496,
    mozcpp_kw_1497, mozcpp_kw_1498, mozcpp_kw_1499, mozcpp_kw_1500, mozcpp_kw_1501,
    mozcpp_kw_1502, mozcpp_kw_1503, mozcpp_kw_1504, mozcpp_kw_1505, mozcpp_kw_1506,
    mozcpp_kw_1507, mozcpp_kw_1508, mozcpp_kw_1509, mozcpp_kw_1510, mozcpp_kw_1511,
    mozcpp_kw_1512, mozcpp_kw_1513, mozcpp_kw_1514, mozcpp_kw_1515, mozcpp_kw_1516,
    mozcpp_kw_1517, mozcpp_kw_1518, mozcpp_kw_1519, mozcpp_kw_1520, mozcpp_kw_1521,
    mozcpp_kw_1522, mozcpp_kw_1523, mozcpp_kw_1524, mozcpp_kw_1525, mozcpp_kw_1526,
    mozcpp_kw_1527, mozcpp_kw_1528, mozcpp_kw_1529, mozcpp_kw_1530, mozcpp_kw_1531,
    mozcpp_kw_1532, mozcpp_kw_1533, mozcpp_kw_1534, mozcpp_kw_1535, mozcpp_kw_1536,
    mozcpp_kw_1537, mozcpp_kw_1538, mozcpp_kw_1539, mozcpp_kw_1540, mozcpp_kw_1541,
    mozcpp_kw_1542, mozcpp_kw_1543, mozcpp_kw_1544, mozcpp_kw_1545, mozcpp_kw_1546,
    mozcpp_kw_1547, mozcpp_kw_1548, mozcpp_kw_1549, mozcpp_kw_1550, mozcpp_kw_1551,
    mozcpp_kw_1552, mozcpp_kw_1553, mozcpp_kw_1554, mozcpp_kw_1555, mozcpp_kw_1556,
    mozcpp_kw_1557, mozcpp_kw_1558, mozcpp_kw_1559, mozcpp_kw_1560, mozcpp_kw_1561,
    mozcpp_kw_1562, mozcpp_kw_1563, mozcpp_kw_1564, mozcpp_kw_1565, mozcpp_kw_1566,
    mozcpp_kw_1567, mozcpp_kw_1568, mozcpp_kw_1569, mozcpp_kw_1570, mozcpp_kw_1571,
    mozcpp_kw_1572, mozcpp_kw_1573, mozcpp_kw_1574, mozcpp_kw_1575, mozcpp_kw_1576,
    mozcpp_kw_1577, mozcpp_kw_1578, mozcpp_kw_1579, mozcpp_kw_1580, mozcpp_kw_1581,
    mozcpp_kw_1582, mozcpp_kw_1583, mozcpp_kw_1584, mozcpp_kw_1585, mozcpp_kw_1586,
    mozcpp_kw_1587, mozcpp_kw_1588, mozcpp_kw_1589, mozcpp_kw_1590, mozcpp_kw_1591,
    mozcpp_kw_1592, mozcpp_kw_1593, mozcpp_kw_1594, mozcpp_kw_1595, mozcpp_kw_1596,
    mozcpp_kw_1597, mozcpp_kw_1598, mozcpp_kw_1599, mozcpp_kw_1600, mozcpp_kw_1601,
    mozcpp_kw_1602, mozcpp_kw_1603, mozcpp_kw_1604, mozcpp_kw_1605, mozcpp_kw_1606,
    mozcpp_kw_1607, mozcpp_kw_1608, mozcpp_kw_1609, mozcpp_kw_1610, mozcpp_kw_1611,
    mozcpp_kw_1612, mozcpp_kw_1613, mozcpp_kw_1614, mozcpp_kw_1615, mozcpp_kw_1616,
    mozcpp_kw_1617, mozcpp_kw_1618, mozcpp_kw_1619, mozcpp_kw_1620, mozcpp_kw_1621,
    mozcpp_kw_1622, mozcpp_kw_1623, mozcpp_kw_1624, mozcpp_kw_1625, mozcpp_kw_1626,
    mozcpp_kw_1627, mozcpp_kw_1628, mozcpp_kw_1629, mozcpp_kw_1630, mozcpp_kw_1631,
    mozcpp_kw_1632, mozcpp_kw_1633, mozcpp_kw_1634, mozcpp_kw_1635, mozcpp_kw_1636,
    mozcpp_kw_1637, mozcpp_kw_1638, mozcpp_kw_1639, mozcpp_kw_1640, mozcpp_kw_1641,
    mozcpp_kw_1642, mozcpp_kw_1643, mozcpp_kw_1644, mozcpp_kw_1645, mozcpp_kw_1646,
    mozcpp_kw_1647, mozcpp_kw_1648, mozcpp_kw_1649, mozcpp_kw_1650, mozcpp_kw_1651,
    mozcpp_kw_1652, mozcpp_kw_1653, mozcpp_kw_1654, mozcpp_kw_1655, mozcpp_kw_1656,
    mozcpp_kw_1657, mozcpp_kw_1658, mozcpp_kw_1659, mozcpp_kw_1660, mozcpp_kw_1661,
    mozcpp_kw_1662, mozcpp_kw_1663, mozcpp_kw_1664, mozcpp_kw_1665, mozcpp_kw_1666,
    mozcpp_kw_1667, mozcpp_kw_1668, mozcpp_kw_1669, mozcpp_kw_1670, mozcpp_kw_1671,
    mozcpp_kw_1672, mozcpp_kw_1673, mozcpp_kw_1674, mozcpp_kw_1675, mozcpp_kw_1676,
    mozcpp_kw_1677, mozcpp_kw_1678, mozcpp_kw_1679, mozcpp_kw_1680, mozcpp_kw_1681,
    mozcpp_kw_1682, mozcpp_kw_1683, mozcpp_kw_1684, mozcpp_kw_1685, mozcpp_kw_1686,
    mozcpp_kw_1687, mozcpp_kw_1688, mozcpp_kw_1689, mozcpp_kw_1690, mozcpp_kw_1691,
    mozcpp_kw_1692, mozcpp_kw_1693, mozcpp_kw_1694, mozcpp_kw_1695, mozcpp_kw_1696,
    mozcpp_kw_1697, mozcpp_kw_1698, mozcpp_kw_1699, mozcpp_kw_1700, mozcpp_kw_1701,
    mozcpp_kw_1702, mozcpp_kw_1703, mozcpp_kw_1704, mozcpp_kw_1705, mozcpp_kw_1706,
    mozcpp_kw_1707, mozcpp_kw_1708, mozcpp_kw_1709, mozcpp_kw_1710, mozcpp_kw_1711,
    mozcpp_kw_1712, mozcpp_kw_1713, mozcpp_kw_1714, mozcpp_kw_1715, mozcpp_kw_1716,
    mozcpp_kw_1717, mozcpp_kw_1718, mozcpp_kw_1719, mozcpp_kw_1720, mozcpp_kw_1721,
    mozcpp_kw_1722, mozcpp_kw_1723, mozcpp_kw_1724, mozcpp_kw_1725, mozcpp_kw_1726,
    mozcpp_kw_1727, mozcpp_kw_1728, mozcpp_kw_1729, mozcpp_kw_1730, mozcpp_kw_1731,
    mozcpp_kw_1732, mozcpp_kw_1733, mozcpp_kw_1734, mozcpp_kw_1735, mozcpp_kw_1736,
    mozcpp_kw_1737, mozcpp_kw_1738, mozcpp_kw_1739, mozcpp_kw_1740, mozcpp_kw_1741,
    mozcpp_kw_1742, mozcpp_kw_1743, mozcpp_kw_1744, mozcpp_kw_1745, mozcpp_kw_1746,
    mozcpp_kw_1747, mozcpp_kw_1748, mozcpp_kw_1749, mozcpp_kw_1750, mozcpp_kw_1751,
    mozcpp_kw_1752, mozcpp_kw_1753, mozcpp_kw_1754, mozcpp_kw_1755, mozcpp_kw_1756,
    mozcpp_kw_1757, mozcpp_kw_1758, mozcpp_kw_1759, mozcpp_kw_1760, mozcpp_kw_1761,
    mozcpp_kw_1762, mozcpp_kw_1763, mozcpp_kw_1764, mozcpp_kw_1765, mozcpp_kw_1766,
    mozcpp_kw_1767, mozcpp_kw_1768, mozcpp_kw_1769, mozcpp_kw_1770, mozcpp_kw_1771,
    mozcpp_kw_1772, mozcpp_kw_1773, mozcpp_kw_1774, mozcpp_kw_1775, mozcpp_kw_1776,
    mozcpp_kw_1777, mozcpp_kw_1778, mozcpp_kw_1779, mozcpp_kw_1780, mozcpp_kw_1781,
    mozcpp_kw_1782, mozcpp_kw_1783, mozcpp_kw_1784, mozcpp_kw_1785, mozcpp_kw_1786,
    mozcpp_kw_1787, mozcpp_kw_1788, mozcpp_kw_1789, mozcpp_kw_1790, mozcpp_kw_1791,
    mozcpp_kw_1792, mozcpp_kw_1793, mozcpp_kw_1794, mozcpp_kw_1795, mozcpp_kw_1796,
    mozcpp_kw_1797, mozcpp_kw_1798, mozcpp_kw_1799, mozcpp_kw_1800, mozcpp_kw_1801,
    mozcpp_kw_1802, mozcpp_kw_1803, mozcpp_kw_1804, mozcpp_kw_1805, mozcpp_kw_1806,
    mozcpp_kw_1807, mozcpp_kw_1808, mozcpp_kw_1809, mozcpp_kw_1810, mozcpp_kw_1811,
    mozcpp_kw_1812, mozcpp_kw_1813, mozcpp_kw_1814, mozcpp_kw_1815, mozcpp_kw_1816,
    mozcpp_kw_1817]"
  by (simp add: mozcpp_kw_cases_def mozcpp_kw_cases_0_def mozcpp_kw_cases_1_def
    mozcpp_kw_cases_2_def mozcpp_kw_cases_3_def mozcpp_kw_cases_4_def mozcpp_kw_cases_5_def
    mozcpp_kw_cases_6_def mozcpp_kw_cases_7_def mozcpp_kw_cases_8_def mozcpp_kw_cases_9_def
    mozcpp_kw_cases_10_def mozcpp_kw_cases_11_def mozcpp_kw_cases_12_def mozcpp_kw_cases_13_def
    mozcpp_kw_cases_14_def mozcpp_kw_cases_15_def mozcpp_kw_cases_16_def mozcpp_kw_cases_17_def
    mozcpp_kw_cases_18_def mozcpp_kw_cases_19_def mozcpp_kw_cases_20_def mozcpp_kw_cases_21_def
    mozcpp_kw_cases_22_def mozcpp_kw_cases_23_def mozcpp_kw_cases_24_def mozcpp_kw_cases_25_def
    mozcpp_kw_cases_26_def mozcpp_kw_cases_27_def mozcpp_kw_cases_28_def mozcpp_kw_cases_29_def
    mozcpp_kw_cases_30_def mozcpp_kw_cases_31_def mozcpp_kw_cases_32_def mozcpp_kw_cases_33_def
    mozcpp_kw_cases_34_def mozcpp_kw_cases_35_def mozcpp_kw_cases_36_def mozcpp_kw_cases_37_def)

definition mozcpp_ts_lex_keywords :: lex_switch where
  "mozcpp_ts_lex_keywords state eof la =
     (if state < 1818 then Some ((mozcpp_kw_cases ! state) eof la) else None)"

lemmas mozcpp_kw_defs =
  mozcpp_kw_0_def mozcpp_kw_1_def mozcpp_kw_2_def mozcpp_kw_3_def mozcpp_kw_4_def mozcpp_kw_5_def
    mozcpp_kw_6_def mozcpp_kw_7_def mozcpp_kw_8_def mozcpp_kw_9_def mozcpp_kw_10_def
    mozcpp_kw_11_def mozcpp_kw_12_def mozcpp_kw_13_def mozcpp_kw_14_def mozcpp_kw_15_def
    mozcpp_kw_16_def mozcpp_kw_17_def mozcpp_kw_18_def mozcpp_kw_19_def mozcpp_kw_20_def
    mozcpp_kw_21_def mozcpp_kw_22_def mozcpp_kw_23_def mozcpp_kw_24_def mozcpp_kw_25_def
    mozcpp_kw_26_def mozcpp_kw_27_def mozcpp_kw_28_def mozcpp_kw_29_def mozcpp_kw_30_def
    mozcpp_kw_31_def mozcpp_kw_32_def mozcpp_kw_33_def mozcpp_kw_34_def mozcpp_kw_35_def
    mozcpp_kw_36_def mozcpp_kw_37_def mozcpp_kw_38_def mozcpp_kw_39_def mozcpp_kw_40_def
    mozcpp_kw_41_def mozcpp_kw_42_def mozcpp_kw_43_def mozcpp_kw_44_def mozcpp_kw_45_def
    mozcpp_kw_46_def mozcpp_kw_47_def mozcpp_kw_48_def mozcpp_kw_49_def mozcpp_kw_50_def
    mozcpp_kw_51_def mozcpp_kw_52_def mozcpp_kw_53_def mozcpp_kw_54_def mozcpp_kw_55_def
    mozcpp_kw_56_def mozcpp_kw_57_def mozcpp_kw_58_def mozcpp_kw_59_def mozcpp_kw_60_def
    mozcpp_kw_61_def mozcpp_kw_62_def mozcpp_kw_63_def mozcpp_kw_64_def mozcpp_kw_65_def
    mozcpp_kw_66_def mozcpp_kw_67_def mozcpp_kw_68_def mozcpp_kw_69_def mozcpp_kw_70_def
    mozcpp_kw_71_def mozcpp_kw_72_def mozcpp_kw_73_def mozcpp_kw_74_def mozcpp_kw_75_def
    mozcpp_kw_76_def mozcpp_kw_77_def mozcpp_kw_78_def mozcpp_kw_79_def mozcpp_kw_80_def
    mozcpp_kw_81_def mozcpp_kw_82_def mozcpp_kw_83_def mozcpp_kw_84_def mozcpp_kw_85_def
    mozcpp_kw_86_def mozcpp_kw_87_def mozcpp_kw_88_def mozcpp_kw_89_def mozcpp_kw_90_def
    mozcpp_kw_91_def mozcpp_kw_92_def mozcpp_kw_93_def mozcpp_kw_94_def mozcpp_kw_95_def
    mozcpp_kw_96_def mozcpp_kw_97_def mozcpp_kw_98_def mozcpp_kw_99_def mozcpp_kw_100_def
    mozcpp_kw_101_def mozcpp_kw_102_def mozcpp_kw_103_def mozcpp_kw_104_def mozcpp_kw_105_def
    mozcpp_kw_106_def mozcpp_kw_107_def mozcpp_kw_108_def mozcpp_kw_109_def mozcpp_kw_110_def
    mozcpp_kw_111_def mozcpp_kw_112_def mozcpp_kw_113_def mozcpp_kw_114_def mozcpp_kw_115_def
    mozcpp_kw_116_def mozcpp_kw_117_def mozcpp_kw_118_def mozcpp_kw_119_def mozcpp_kw_120_def
    mozcpp_kw_121_def mozcpp_kw_122_def mozcpp_kw_123_def mozcpp_kw_124_def mozcpp_kw_125_def
    mozcpp_kw_126_def mozcpp_kw_127_def mozcpp_kw_128_def mozcpp_kw_129_def mozcpp_kw_130_def
    mozcpp_kw_131_def mozcpp_kw_132_def mozcpp_kw_133_def mozcpp_kw_134_def mozcpp_kw_135_def
    mozcpp_kw_136_def mozcpp_kw_137_def mozcpp_kw_138_def mozcpp_kw_139_def mozcpp_kw_140_def
    mozcpp_kw_141_def mozcpp_kw_142_def mozcpp_kw_143_def mozcpp_kw_144_def mozcpp_kw_145_def
    mozcpp_kw_146_def mozcpp_kw_147_def mozcpp_kw_148_def mozcpp_kw_149_def mozcpp_kw_150_def
    mozcpp_kw_151_def mozcpp_kw_152_def mozcpp_kw_153_def mozcpp_kw_154_def mozcpp_kw_155_def
    mozcpp_kw_156_def mozcpp_kw_157_def mozcpp_kw_158_def mozcpp_kw_159_def mozcpp_kw_160_def
    mozcpp_kw_161_def mozcpp_kw_162_def mozcpp_kw_163_def mozcpp_kw_164_def mozcpp_kw_165_def
    mozcpp_kw_166_def mozcpp_kw_167_def mozcpp_kw_168_def mozcpp_kw_169_def mozcpp_kw_170_def
    mozcpp_kw_171_def mozcpp_kw_172_def mozcpp_kw_173_def mozcpp_kw_174_def mozcpp_kw_175_def
    mozcpp_kw_176_def mozcpp_kw_177_def mozcpp_kw_178_def mozcpp_kw_179_def mozcpp_kw_180_def
    mozcpp_kw_181_def mozcpp_kw_182_def mozcpp_kw_183_def mozcpp_kw_184_def mozcpp_kw_185_def
    mozcpp_kw_186_def mozcpp_kw_187_def mozcpp_kw_188_def mozcpp_kw_189_def mozcpp_kw_190_def
    mozcpp_kw_191_def mozcpp_kw_192_def mozcpp_kw_193_def mozcpp_kw_194_def mozcpp_kw_195_def
    mozcpp_kw_196_def mozcpp_kw_197_def mozcpp_kw_198_def mozcpp_kw_199_def mozcpp_kw_200_def
    mozcpp_kw_201_def mozcpp_kw_202_def mozcpp_kw_203_def mozcpp_kw_204_def mozcpp_kw_205_def
    mozcpp_kw_206_def mozcpp_kw_207_def mozcpp_kw_208_def mozcpp_kw_209_def mozcpp_kw_210_def
    mozcpp_kw_211_def mozcpp_kw_212_def mozcpp_kw_213_def mozcpp_kw_214_def mozcpp_kw_215_def
    mozcpp_kw_216_def mozcpp_kw_217_def mozcpp_kw_218_def mozcpp_kw_219_def mozcpp_kw_220_def
    mozcpp_kw_221_def mozcpp_kw_222_def mozcpp_kw_223_def mozcpp_kw_224_def mozcpp_kw_225_def
    mozcpp_kw_226_def mozcpp_kw_227_def mozcpp_kw_228_def mozcpp_kw_229_def mozcpp_kw_230_def
    mozcpp_kw_231_def mozcpp_kw_232_def mozcpp_kw_233_def mozcpp_kw_234_def mozcpp_kw_235_def
    mozcpp_kw_236_def mozcpp_kw_237_def mozcpp_kw_238_def mozcpp_kw_239_def mozcpp_kw_240_def
    mozcpp_kw_241_def mozcpp_kw_242_def mozcpp_kw_243_def mozcpp_kw_244_def mozcpp_kw_245_def
    mozcpp_kw_246_def mozcpp_kw_247_def mozcpp_kw_248_def mozcpp_kw_249_def mozcpp_kw_250_def
    mozcpp_kw_251_def mozcpp_kw_252_def mozcpp_kw_253_def mozcpp_kw_254_def mozcpp_kw_255_def
    mozcpp_kw_256_def mozcpp_kw_257_def mozcpp_kw_258_def mozcpp_kw_259_def mozcpp_kw_260_def
    mozcpp_kw_261_def mozcpp_kw_262_def mozcpp_kw_263_def mozcpp_kw_264_def mozcpp_kw_265_def
    mozcpp_kw_266_def mozcpp_kw_267_def mozcpp_kw_268_def mozcpp_kw_269_def mozcpp_kw_270_def
    mozcpp_kw_271_def mozcpp_kw_272_def mozcpp_kw_273_def mozcpp_kw_274_def mozcpp_kw_275_def
    mozcpp_kw_276_def mozcpp_kw_277_def mozcpp_kw_278_def mozcpp_kw_279_def mozcpp_kw_280_def
    mozcpp_kw_281_def mozcpp_kw_282_def mozcpp_kw_283_def mozcpp_kw_284_def mozcpp_kw_285_def
    mozcpp_kw_286_def mozcpp_kw_287_def mozcpp_kw_288_def mozcpp_kw_289_def mozcpp_kw_290_def
    mozcpp_kw_291_def mozcpp_kw_292_def mozcpp_kw_293_def mozcpp_kw_294_def mozcpp_kw_295_def
    mozcpp_kw_296_def mozcpp_kw_297_def mozcpp_kw_298_def mozcpp_kw_299_def mozcpp_kw_300_def
    mozcpp_kw_301_def mozcpp_kw_302_def mozcpp_kw_303_def mozcpp_kw_304_def mozcpp_kw_305_def
    mozcpp_kw_306_def mozcpp_kw_307_def mozcpp_kw_308_def mozcpp_kw_309_def mozcpp_kw_310_def
    mozcpp_kw_311_def mozcpp_kw_312_def mozcpp_kw_313_def mozcpp_kw_314_def mozcpp_kw_315_def
    mozcpp_kw_316_def mozcpp_kw_317_def mozcpp_kw_318_def mozcpp_kw_319_def mozcpp_kw_320_def
    mozcpp_kw_321_def mozcpp_kw_322_def mozcpp_kw_323_def mozcpp_kw_324_def mozcpp_kw_325_def
    mozcpp_kw_326_def mozcpp_kw_327_def mozcpp_kw_328_def mozcpp_kw_329_def mozcpp_kw_330_def
    mozcpp_kw_331_def mozcpp_kw_332_def mozcpp_kw_333_def mozcpp_kw_334_def mozcpp_kw_335_def
    mozcpp_kw_336_def mozcpp_kw_337_def mozcpp_kw_338_def mozcpp_kw_339_def mozcpp_kw_340_def
    mozcpp_kw_341_def mozcpp_kw_342_def mozcpp_kw_343_def mozcpp_kw_344_def mozcpp_kw_345_def
    mozcpp_kw_346_def mozcpp_kw_347_def mozcpp_kw_348_def mozcpp_kw_349_def mozcpp_kw_350_def
    mozcpp_kw_351_def mozcpp_kw_352_def mozcpp_kw_353_def mozcpp_kw_354_def mozcpp_kw_355_def
    mozcpp_kw_356_def mozcpp_kw_357_def mozcpp_kw_358_def mozcpp_kw_359_def mozcpp_kw_360_def
    mozcpp_kw_361_def mozcpp_kw_362_def mozcpp_kw_363_def mozcpp_kw_364_def mozcpp_kw_365_def
    mozcpp_kw_366_def mozcpp_kw_367_def mozcpp_kw_368_def mozcpp_kw_369_def mozcpp_kw_370_def
    mozcpp_kw_371_def mozcpp_kw_372_def mozcpp_kw_373_def mozcpp_kw_374_def mozcpp_kw_375_def
    mozcpp_kw_376_def mozcpp_kw_377_def mozcpp_kw_378_def mozcpp_kw_379_def mozcpp_kw_380_def
    mozcpp_kw_381_def mozcpp_kw_382_def mozcpp_kw_383_def mozcpp_kw_384_def mozcpp_kw_385_def
    mozcpp_kw_386_def mozcpp_kw_387_def mozcpp_kw_388_def mozcpp_kw_389_def mozcpp_kw_390_def
    mozcpp_kw_391_def mozcpp_kw_392_def mozcpp_kw_393_def mozcpp_kw_394_def mozcpp_kw_395_def
    mozcpp_kw_396_def mozcpp_kw_397_def mozcpp_kw_398_def mozcpp_kw_399_def mozcpp_kw_400_def
    mozcpp_kw_401_def mozcpp_kw_402_def mozcpp_kw_403_def mozcpp_kw_404_def mozcpp_kw_405_def
    mozcpp_kw_406_def mozcpp_kw_407_def mozcpp_kw_408_def mozcpp_kw_409_def mozcpp_kw_410_def
    mozcpp_kw_411_def mozcpp_kw_412_def mozcpp_kw_413_def mozcpp_kw_414_def mozcpp_kw_415_def
    mozcpp_kw_416_def mozcpp_kw_417_def mozcpp_kw_418_def mozcpp_kw_419_def mozcpp_kw_420_def
    mozcpp_kw_421_def mozcpp_kw_422_def mozcpp_kw_423_def mozcpp_kw_424_def mozcpp_kw_425_def
    mozcpp_kw_426_def mozcpp_kw_427_def mozcpp_kw_428_def mozcpp_kw_429_def mozcpp_kw_430_def
    mozcpp_kw_431_def mozcpp_kw_432_def mozcpp_kw_433_def mozcpp_kw_434_def mozcpp_kw_435_def
    mozcpp_kw_436_def mozcpp_kw_437_def mozcpp_kw_438_def mozcpp_kw_439_def mozcpp_kw_440_def
    mozcpp_kw_441_def mozcpp_kw_442_def mozcpp_kw_443_def mozcpp_kw_444_def mozcpp_kw_445_def
    mozcpp_kw_446_def mozcpp_kw_447_def mozcpp_kw_448_def mozcpp_kw_449_def mozcpp_kw_450_def
    mozcpp_kw_451_def mozcpp_kw_452_def mozcpp_kw_453_def mozcpp_kw_454_def mozcpp_kw_455_def
    mozcpp_kw_456_def mozcpp_kw_457_def mozcpp_kw_458_def mozcpp_kw_459_def mozcpp_kw_460_def
    mozcpp_kw_461_def mozcpp_kw_462_def mozcpp_kw_463_def mozcpp_kw_464_def mozcpp_kw_465_def
    mozcpp_kw_466_def mozcpp_kw_467_def mozcpp_kw_468_def mozcpp_kw_469_def mozcpp_kw_470_def
    mozcpp_kw_471_def mozcpp_kw_472_def mozcpp_kw_473_def mozcpp_kw_474_def mozcpp_kw_475_def
    mozcpp_kw_476_def mozcpp_kw_477_def mozcpp_kw_478_def mozcpp_kw_479_def mozcpp_kw_480_def
    mozcpp_kw_481_def mozcpp_kw_482_def mozcpp_kw_483_def mozcpp_kw_484_def mozcpp_kw_485_def
    mozcpp_kw_486_def mozcpp_kw_487_def mozcpp_kw_488_def mozcpp_kw_489_def mozcpp_kw_490_def
    mozcpp_kw_491_def mozcpp_kw_492_def mozcpp_kw_493_def mozcpp_kw_494_def mozcpp_kw_495_def
    mozcpp_kw_496_def mozcpp_kw_497_def mozcpp_kw_498_def mozcpp_kw_499_def mozcpp_kw_500_def
    mozcpp_kw_501_def mozcpp_kw_502_def mozcpp_kw_503_def mozcpp_kw_504_def mozcpp_kw_505_def
    mozcpp_kw_506_def mozcpp_kw_507_def mozcpp_kw_508_def mozcpp_kw_509_def mozcpp_kw_510_def
    mozcpp_kw_511_def mozcpp_kw_512_def mozcpp_kw_513_def mozcpp_kw_514_def mozcpp_kw_515_def
    mozcpp_kw_516_def mozcpp_kw_517_def mozcpp_kw_518_def mozcpp_kw_519_def mozcpp_kw_520_def
    mozcpp_kw_521_def mozcpp_kw_522_def mozcpp_kw_523_def mozcpp_kw_524_def mozcpp_kw_525_def
    mozcpp_kw_526_def mozcpp_kw_527_def mozcpp_kw_528_def mozcpp_kw_529_def mozcpp_kw_530_def
    mozcpp_kw_531_def mozcpp_kw_532_def mozcpp_kw_533_def mozcpp_kw_534_def mozcpp_kw_535_def
    mozcpp_kw_536_def mozcpp_kw_537_def mozcpp_kw_538_def mozcpp_kw_539_def mozcpp_kw_540_def
    mozcpp_kw_541_def mozcpp_kw_542_def mozcpp_kw_543_def mozcpp_kw_544_def mozcpp_kw_545_def
    mozcpp_kw_546_def mozcpp_kw_547_def mozcpp_kw_548_def mozcpp_kw_549_def mozcpp_kw_550_def
    mozcpp_kw_551_def mozcpp_kw_552_def mozcpp_kw_553_def mozcpp_kw_554_def mozcpp_kw_555_def
    mozcpp_kw_556_def mozcpp_kw_557_def mozcpp_kw_558_def mozcpp_kw_559_def mozcpp_kw_560_def
    mozcpp_kw_561_def mozcpp_kw_562_def mozcpp_kw_563_def mozcpp_kw_564_def mozcpp_kw_565_def
    mozcpp_kw_566_def mozcpp_kw_567_def mozcpp_kw_568_def mozcpp_kw_569_def mozcpp_kw_570_def
    mozcpp_kw_571_def mozcpp_kw_572_def mozcpp_kw_573_def mozcpp_kw_574_def mozcpp_kw_575_def
    mozcpp_kw_576_def mozcpp_kw_577_def mozcpp_kw_578_def mozcpp_kw_579_def mozcpp_kw_580_def
    mozcpp_kw_581_def mozcpp_kw_582_def mozcpp_kw_583_def mozcpp_kw_584_def mozcpp_kw_585_def
    mozcpp_kw_586_def mozcpp_kw_587_def mozcpp_kw_588_def mozcpp_kw_589_def mozcpp_kw_590_def
    mozcpp_kw_591_def mozcpp_kw_592_def mozcpp_kw_593_def mozcpp_kw_594_def mozcpp_kw_595_def
    mozcpp_kw_596_def mozcpp_kw_597_def mozcpp_kw_598_def mozcpp_kw_599_def mozcpp_kw_600_def
    mozcpp_kw_601_def mozcpp_kw_602_def mozcpp_kw_603_def mozcpp_kw_604_def mozcpp_kw_605_def
    mozcpp_kw_606_def mozcpp_kw_607_def mozcpp_kw_608_def mozcpp_kw_609_def mozcpp_kw_610_def
    mozcpp_kw_611_def mozcpp_kw_612_def mozcpp_kw_613_def mozcpp_kw_614_def mozcpp_kw_615_def
    mozcpp_kw_616_def mozcpp_kw_617_def mozcpp_kw_618_def mozcpp_kw_619_def mozcpp_kw_620_def
    mozcpp_kw_621_def mozcpp_kw_622_def mozcpp_kw_623_def mozcpp_kw_624_def mozcpp_kw_625_def
    mozcpp_kw_626_def mozcpp_kw_627_def mozcpp_kw_628_def mozcpp_kw_629_def mozcpp_kw_630_def
    mozcpp_kw_631_def mozcpp_kw_632_def mozcpp_kw_633_def mozcpp_kw_634_def mozcpp_kw_635_def
    mozcpp_kw_636_def mozcpp_kw_637_def mozcpp_kw_638_def mozcpp_kw_639_def mozcpp_kw_640_def
    mozcpp_kw_641_def mozcpp_kw_642_def mozcpp_kw_643_def mozcpp_kw_644_def mozcpp_kw_645_def
    mozcpp_kw_646_def mozcpp_kw_647_def mozcpp_kw_648_def mozcpp_kw_649_def mozcpp_kw_650_def
    mozcpp_kw_651_def mozcpp_kw_652_def mozcpp_kw_653_def mozcpp_kw_654_def mozcpp_kw_655_def
    mozcpp_kw_656_def mozcpp_kw_657_def mozcpp_kw_658_def mozcpp_kw_659_def mozcpp_kw_660_def
    mozcpp_kw_661_def mozcpp_kw_662_def mozcpp_kw_663_def mozcpp_kw_664_def mozcpp_kw_665_def
    mozcpp_kw_666_def mozcpp_kw_667_def mozcpp_kw_668_def mozcpp_kw_669_def mozcpp_kw_670_def
    mozcpp_kw_671_def mozcpp_kw_672_def mozcpp_kw_673_def mozcpp_kw_674_def mozcpp_kw_675_def
    mozcpp_kw_676_def mozcpp_kw_677_def mozcpp_kw_678_def mozcpp_kw_679_def mozcpp_kw_680_def
    mozcpp_kw_681_def mozcpp_kw_682_def mozcpp_kw_683_def mozcpp_kw_684_def mozcpp_kw_685_def
    mozcpp_kw_686_def mozcpp_kw_687_def mozcpp_kw_688_def mozcpp_kw_689_def mozcpp_kw_690_def
    mozcpp_kw_691_def mozcpp_kw_692_def mozcpp_kw_693_def mozcpp_kw_694_def mozcpp_kw_695_def
    mozcpp_kw_696_def mozcpp_kw_697_def mozcpp_kw_698_def mozcpp_kw_699_def mozcpp_kw_700_def
    mozcpp_kw_701_def mozcpp_kw_702_def mozcpp_kw_703_def mozcpp_kw_704_def mozcpp_kw_705_def
    mozcpp_kw_706_def mozcpp_kw_707_def mozcpp_kw_708_def mozcpp_kw_709_def mozcpp_kw_710_def
    mozcpp_kw_711_def mozcpp_kw_712_def mozcpp_kw_713_def mozcpp_kw_714_def mozcpp_kw_715_def
    mozcpp_kw_716_def mozcpp_kw_717_def mozcpp_kw_718_def mozcpp_kw_719_def mozcpp_kw_720_def
    mozcpp_kw_721_def mozcpp_kw_722_def mozcpp_kw_723_def mozcpp_kw_724_def mozcpp_kw_725_def
    mozcpp_kw_726_def mozcpp_kw_727_def mozcpp_kw_728_def mozcpp_kw_729_def mozcpp_kw_730_def
    mozcpp_kw_731_def mozcpp_kw_732_def mozcpp_kw_733_def mozcpp_kw_734_def mozcpp_kw_735_def
    mozcpp_kw_736_def mozcpp_kw_737_def mozcpp_kw_738_def mozcpp_kw_739_def mozcpp_kw_740_def
    mozcpp_kw_741_def mozcpp_kw_742_def mozcpp_kw_743_def mozcpp_kw_744_def mozcpp_kw_745_def
    mozcpp_kw_746_def mozcpp_kw_747_def mozcpp_kw_748_def mozcpp_kw_749_def mozcpp_kw_750_def
    mozcpp_kw_751_def mozcpp_kw_752_def mozcpp_kw_753_def mozcpp_kw_754_def mozcpp_kw_755_def
    mozcpp_kw_756_def mozcpp_kw_757_def mozcpp_kw_758_def mozcpp_kw_759_def mozcpp_kw_760_def
    mozcpp_kw_761_def mozcpp_kw_762_def mozcpp_kw_763_def mozcpp_kw_764_def mozcpp_kw_765_def
    mozcpp_kw_766_def mozcpp_kw_767_def mozcpp_kw_768_def mozcpp_kw_769_def mozcpp_kw_770_def
    mozcpp_kw_771_def mozcpp_kw_772_def mozcpp_kw_773_def mozcpp_kw_774_def mozcpp_kw_775_def
    mozcpp_kw_776_def mozcpp_kw_777_def mozcpp_kw_778_def mozcpp_kw_779_def mozcpp_kw_780_def
    mozcpp_kw_781_def mozcpp_kw_782_def mozcpp_kw_783_def mozcpp_kw_784_def mozcpp_kw_785_def
    mozcpp_kw_786_def mozcpp_kw_787_def mozcpp_kw_788_def mozcpp_kw_789_def mozcpp_kw_790_def
    mozcpp_kw_791_def mozcpp_kw_792_def mozcpp_kw_793_def mozcpp_kw_794_def mozcpp_kw_795_def
    mozcpp_kw_796_def mozcpp_kw_797_def mozcpp_kw_798_def mozcpp_kw_799_def mozcpp_kw_800_def
    mozcpp_kw_801_def mozcpp_kw_802_def mozcpp_kw_803_def mozcpp_kw_804_def mozcpp_kw_805_def
    mozcpp_kw_806_def mozcpp_kw_807_def mozcpp_kw_808_def mozcpp_kw_809_def mozcpp_kw_810_def
    mozcpp_kw_811_def mozcpp_kw_812_def mozcpp_kw_813_def mozcpp_kw_814_def mozcpp_kw_815_def
    mozcpp_kw_816_def mozcpp_kw_817_def mozcpp_kw_818_def mozcpp_kw_819_def mozcpp_kw_820_def
    mozcpp_kw_821_def mozcpp_kw_822_def mozcpp_kw_823_def mozcpp_kw_824_def mozcpp_kw_825_def
    mozcpp_kw_826_def mozcpp_kw_827_def mozcpp_kw_828_def mozcpp_kw_829_def mozcpp_kw_830_def
    mozcpp_kw_831_def mozcpp_kw_832_def mozcpp_kw_833_def mozcpp_kw_834_def mozcpp_kw_835_def
    mozcpp_kw_836_def mozcpp_kw_837_def mozcpp_kw_838_def mozcpp_kw_839_def mozcpp_kw_840_def
    mozcpp_kw_841_def mozcpp_kw_842_def mozcpp_kw_843_def mozcpp_kw_844_def mozcpp_kw_845_def
    mozcpp_kw_846_def mozcpp_kw_847_def mozcpp_kw_848_def mozcpp_kw_849_def mozcpp_kw_850_def
    mozcpp_kw_851_def mozcpp_kw_852_def mozcpp_kw_853_def mozcpp_kw_854_def mozcpp_kw_855_def
    mozcpp_kw_856_def mozcpp_kw_857_def mozcpp_kw_858_def mozcpp_kw_859_def mozcpp_kw_860_def
    mozcpp_kw_861_def mozcpp_kw_862_def mozcpp_kw_863_def mozcpp_kw_864_def mozcpp_kw_865_def
    mozcpp_kw_866_def mozcpp_kw_867_def mozcpp_kw_868_def mozcpp_kw_869_def mozcpp_kw_870_def
    mozcpp_kw_871_def mozcpp_kw_872_def mozcpp_kw_873_def mozcpp_kw_874_def mozcpp_kw_875_def
    mozcpp_kw_876_def mozcpp_kw_877_def mozcpp_kw_878_def mozcpp_kw_879_def mozcpp_kw_880_def
    mozcpp_kw_881_def mozcpp_kw_882_def mozcpp_kw_883_def mozcpp_kw_884_def mozcpp_kw_885_def
    mozcpp_kw_886_def mozcpp_kw_887_def mozcpp_kw_888_def mozcpp_kw_889_def mozcpp_kw_890_def
    mozcpp_kw_891_def mozcpp_kw_892_def mozcpp_kw_893_def mozcpp_kw_894_def mozcpp_kw_895_def
    mozcpp_kw_896_def mozcpp_kw_897_def mozcpp_kw_898_def mozcpp_kw_899_def mozcpp_kw_900_def
    mozcpp_kw_901_def mozcpp_kw_902_def mozcpp_kw_903_def mozcpp_kw_904_def mozcpp_kw_905_def
    mozcpp_kw_906_def mozcpp_kw_907_def mozcpp_kw_908_def mozcpp_kw_909_def mozcpp_kw_910_def
    mozcpp_kw_911_def mozcpp_kw_912_def mozcpp_kw_913_def mozcpp_kw_914_def mozcpp_kw_915_def
    mozcpp_kw_916_def mozcpp_kw_917_def mozcpp_kw_918_def mozcpp_kw_919_def mozcpp_kw_920_def
    mozcpp_kw_921_def mozcpp_kw_922_def mozcpp_kw_923_def mozcpp_kw_924_def mozcpp_kw_925_def
    mozcpp_kw_926_def mozcpp_kw_927_def mozcpp_kw_928_def mozcpp_kw_929_def mozcpp_kw_930_def
    mozcpp_kw_931_def mozcpp_kw_932_def mozcpp_kw_933_def mozcpp_kw_934_def mozcpp_kw_935_def
    mozcpp_kw_936_def mozcpp_kw_937_def mozcpp_kw_938_def mozcpp_kw_939_def mozcpp_kw_940_def
    mozcpp_kw_941_def mozcpp_kw_942_def mozcpp_kw_943_def mozcpp_kw_944_def mozcpp_kw_945_def
    mozcpp_kw_946_def mozcpp_kw_947_def mozcpp_kw_948_def mozcpp_kw_949_def mozcpp_kw_950_def
    mozcpp_kw_951_def mozcpp_kw_952_def mozcpp_kw_953_def mozcpp_kw_954_def mozcpp_kw_955_def
    mozcpp_kw_956_def mozcpp_kw_957_def mozcpp_kw_958_def mozcpp_kw_959_def mozcpp_kw_960_def
    mozcpp_kw_961_def mozcpp_kw_962_def mozcpp_kw_963_def mozcpp_kw_964_def mozcpp_kw_965_def
    mozcpp_kw_966_def mozcpp_kw_967_def mozcpp_kw_968_def mozcpp_kw_969_def mozcpp_kw_970_def
    mozcpp_kw_971_def mozcpp_kw_972_def mozcpp_kw_973_def mozcpp_kw_974_def mozcpp_kw_975_def
    mozcpp_kw_976_def mozcpp_kw_977_def mozcpp_kw_978_def mozcpp_kw_979_def mozcpp_kw_980_def
    mozcpp_kw_981_def mozcpp_kw_982_def mozcpp_kw_983_def mozcpp_kw_984_def mozcpp_kw_985_def
    mozcpp_kw_986_def mozcpp_kw_987_def mozcpp_kw_988_def mozcpp_kw_989_def mozcpp_kw_990_def
    mozcpp_kw_991_def mozcpp_kw_992_def mozcpp_kw_993_def mozcpp_kw_994_def mozcpp_kw_995_def
    mozcpp_kw_996_def mozcpp_kw_997_def mozcpp_kw_998_def mozcpp_kw_999_def mozcpp_kw_1000_def
    mozcpp_kw_1001_def mozcpp_kw_1002_def mozcpp_kw_1003_def mozcpp_kw_1004_def
    mozcpp_kw_1005_def mozcpp_kw_1006_def mozcpp_kw_1007_def mozcpp_kw_1008_def
    mozcpp_kw_1009_def mozcpp_kw_1010_def mozcpp_kw_1011_def mozcpp_kw_1012_def
    mozcpp_kw_1013_def mozcpp_kw_1014_def mozcpp_kw_1015_def mozcpp_kw_1016_def
    mozcpp_kw_1017_def mozcpp_kw_1018_def mozcpp_kw_1019_def mozcpp_kw_1020_def
    mozcpp_kw_1021_def mozcpp_kw_1022_def mozcpp_kw_1023_def mozcpp_kw_1024_def
    mozcpp_kw_1025_def mozcpp_kw_1026_def mozcpp_kw_1027_def mozcpp_kw_1028_def
    mozcpp_kw_1029_def mozcpp_kw_1030_def mozcpp_kw_1031_def mozcpp_kw_1032_def
    mozcpp_kw_1033_def mozcpp_kw_1034_def mozcpp_kw_1035_def mozcpp_kw_1036_def
    mozcpp_kw_1037_def mozcpp_kw_1038_def mozcpp_kw_1039_def mozcpp_kw_1040_def
    mozcpp_kw_1041_def mozcpp_kw_1042_def mozcpp_kw_1043_def mozcpp_kw_1044_def
    mozcpp_kw_1045_def mozcpp_kw_1046_def mozcpp_kw_1047_def mozcpp_kw_1048_def
    mozcpp_kw_1049_def mozcpp_kw_1050_def mozcpp_kw_1051_def mozcpp_kw_1052_def
    mozcpp_kw_1053_def mozcpp_kw_1054_def mozcpp_kw_1055_def mozcpp_kw_1056_def
    mozcpp_kw_1057_def mozcpp_kw_1058_def mozcpp_kw_1059_def mozcpp_kw_1060_def
    mozcpp_kw_1061_def mozcpp_kw_1062_def mozcpp_kw_1063_def mozcpp_kw_1064_def
    mozcpp_kw_1065_def mozcpp_kw_1066_def mozcpp_kw_1067_def mozcpp_kw_1068_def
    mozcpp_kw_1069_def mozcpp_kw_1070_def mozcpp_kw_1071_def mozcpp_kw_1072_def
    mozcpp_kw_1073_def mozcpp_kw_1074_def mozcpp_kw_1075_def mozcpp_kw_1076_def
    mozcpp_kw_1077_def mozcpp_kw_1078_def mozcpp_kw_1079_def mozcpp_kw_1080_def
    mozcpp_kw_1081_def mozcpp_kw_1082_def mozcpp_kw_1083_def mozcpp_kw_1084_def
    mozcpp_kw_1085_def mozcpp_kw_1086_def mozcpp_kw_1087_def mozcpp_kw_1088_def
    mozcpp_kw_1089_def mozcpp_kw_1090_def mozcpp_kw_1091_def mozcpp_kw_1092_def
    mozcpp_kw_1093_def mozcpp_kw_1094_def mozcpp_kw_1095_def mozcpp_kw_1096_def
    mozcpp_kw_1097_def mozcpp_kw_1098_def mozcpp_kw_1099_def mozcpp_kw_1100_def
    mozcpp_kw_1101_def mozcpp_kw_1102_def mozcpp_kw_1103_def mozcpp_kw_1104_def
    mozcpp_kw_1105_def mozcpp_kw_1106_def mozcpp_kw_1107_def mozcpp_kw_1108_def
    mozcpp_kw_1109_def mozcpp_kw_1110_def mozcpp_kw_1111_def mozcpp_kw_1112_def
    mozcpp_kw_1113_def mozcpp_kw_1114_def mozcpp_kw_1115_def mozcpp_kw_1116_def
    mozcpp_kw_1117_def mozcpp_kw_1118_def mozcpp_kw_1119_def mozcpp_kw_1120_def
    mozcpp_kw_1121_def mozcpp_kw_1122_def mozcpp_kw_1123_def mozcpp_kw_1124_def
    mozcpp_kw_1125_def mozcpp_kw_1126_def mozcpp_kw_1127_def mozcpp_kw_1128_def
    mozcpp_kw_1129_def mozcpp_kw_1130_def mozcpp_kw_1131_def mozcpp_kw_1132_def
    mozcpp_kw_1133_def mozcpp_kw_1134_def mozcpp_kw_1135_def mozcpp_kw_1136_def
    mozcpp_kw_1137_def mozcpp_kw_1138_def mozcpp_kw_1139_def mozcpp_kw_1140_def
    mozcpp_kw_1141_def mozcpp_kw_1142_def mozcpp_kw_1143_def mozcpp_kw_1144_def
    mozcpp_kw_1145_def mozcpp_kw_1146_def mozcpp_kw_1147_def mozcpp_kw_1148_def
    mozcpp_kw_1149_def mozcpp_kw_1150_def mozcpp_kw_1151_def mozcpp_kw_1152_def
    mozcpp_kw_1153_def mozcpp_kw_1154_def mozcpp_kw_1155_def mozcpp_kw_1156_def
    mozcpp_kw_1157_def mozcpp_kw_1158_def mozcpp_kw_1159_def mozcpp_kw_1160_def
    mozcpp_kw_1161_def mozcpp_kw_1162_def mozcpp_kw_1163_def mozcpp_kw_1164_def
    mozcpp_kw_1165_def mozcpp_kw_1166_def mozcpp_kw_1167_def mozcpp_kw_1168_def
    mozcpp_kw_1169_def mozcpp_kw_1170_def mozcpp_kw_1171_def mozcpp_kw_1172_def
    mozcpp_kw_1173_def mozcpp_kw_1174_def mozcpp_kw_1175_def mozcpp_kw_1176_def
    mozcpp_kw_1177_def mozcpp_kw_1178_def mozcpp_kw_1179_def mozcpp_kw_1180_def
    mozcpp_kw_1181_def mozcpp_kw_1182_def mozcpp_kw_1183_def mozcpp_kw_1184_def
    mozcpp_kw_1185_def mozcpp_kw_1186_def mozcpp_kw_1187_def mozcpp_kw_1188_def
    mozcpp_kw_1189_def mozcpp_kw_1190_def mozcpp_kw_1191_def mozcpp_kw_1192_def
    mozcpp_kw_1193_def mozcpp_kw_1194_def mozcpp_kw_1195_def mozcpp_kw_1196_def
    mozcpp_kw_1197_def mozcpp_kw_1198_def mozcpp_kw_1199_def mozcpp_kw_1200_def
    mozcpp_kw_1201_def mozcpp_kw_1202_def mozcpp_kw_1203_def mozcpp_kw_1204_def
    mozcpp_kw_1205_def mozcpp_kw_1206_def mozcpp_kw_1207_def mozcpp_kw_1208_def
    mozcpp_kw_1209_def mozcpp_kw_1210_def mozcpp_kw_1211_def mozcpp_kw_1212_def
    mozcpp_kw_1213_def mozcpp_kw_1214_def mozcpp_kw_1215_def mozcpp_kw_1216_def
    mozcpp_kw_1217_def mozcpp_kw_1218_def mozcpp_kw_1219_def mozcpp_kw_1220_def
    mozcpp_kw_1221_def mozcpp_kw_1222_def mozcpp_kw_1223_def mozcpp_kw_1224_def
    mozcpp_kw_1225_def mozcpp_kw_1226_def mozcpp_kw_1227_def mozcpp_kw_1228_def
    mozcpp_kw_1229_def mozcpp_kw_1230_def mozcpp_kw_1231_def mozcpp_kw_1232_def
    mozcpp_kw_1233_def mozcpp_kw_1234_def mozcpp_kw_1235_def mozcpp_kw_1236_def
    mozcpp_kw_1237_def mozcpp_kw_1238_def mozcpp_kw_1239_def mozcpp_kw_1240_def
    mozcpp_kw_1241_def mozcpp_kw_1242_def mozcpp_kw_1243_def mozcpp_kw_1244_def
    mozcpp_kw_1245_def mozcpp_kw_1246_def mozcpp_kw_1247_def mozcpp_kw_1248_def
    mozcpp_kw_1249_def mozcpp_kw_1250_def mozcpp_kw_1251_def mozcpp_kw_1252_def
    mozcpp_kw_1253_def mozcpp_kw_1254_def mozcpp_kw_1255_def mozcpp_kw_1256_def
    mozcpp_kw_1257_def mozcpp_kw_1258_def mozcpp_kw_1259_def mozcpp_kw_1260_def
    mozcpp_kw_1261_def mozcpp_kw_1262_def mozcpp_kw_1263_def mozcpp_kw_1264_def
    mozcpp_kw_1265_def mozcpp_kw_1266_def mozcpp_kw_1267_def mozcpp_kw_1268_def
    mozcpp_kw_1269_def mozcpp_kw_1270_def mozcpp_kw_1271_def mozcpp_kw_1272_def
    mozcpp_kw_1273_def mozcpp_kw_1274_def mozcpp_kw_1275_def mozcpp_kw_1276_def
    mozcpp_kw_1277_def mozcpp_kw_1278_def mozcpp_kw_1279_def mozcpp_kw_1280_def
    mozcpp_kw_1281_def mozcpp_kw_1282_def mozcpp_kw_1283_def mozcpp_kw_1284_def
    mozcpp_kw_1285_def mozcpp_kw_1286_def mozcpp_kw_1287_def mozcpp_kw_1288_def
    mozcpp_kw_1289_def mozcpp_kw_1290_def mozcpp_kw_1291_def mozcpp_kw_1292_def
    mozcpp_kw_1293_def mozcpp_kw_1294_def mozcpp_kw_1295_def mozcpp_kw_1296_def
    mozcpp_kw_1297_def mozcpp_kw_1298_def mozcpp_kw_1299_def mozcpp_kw_1300_def
    mozcpp_kw_1301_def mozcpp_kw_1302_def mozcpp_kw_1303_def mozcpp_kw_1304_def
    mozcpp_kw_1305_def mozcpp_kw_1306_def mozcpp_kw_1307_def mozcpp_kw_1308_def
    mozcpp_kw_1309_def mozcpp_kw_1310_def mozcpp_kw_1311_def mozcpp_kw_1312_def
    mozcpp_kw_1313_def mozcpp_kw_1314_def mozcpp_kw_1315_def mozcpp_kw_1316_def
    mozcpp_kw_1317_def mozcpp_kw_1318_def mozcpp_kw_1319_def mozcpp_kw_1320_def
    mozcpp_kw_1321_def mozcpp_kw_1322_def mozcpp_kw_1323_def mozcpp_kw_1324_def
    mozcpp_kw_1325_def mozcpp_kw_1326_def mozcpp_kw_1327_def mozcpp_kw_1328_def
    mozcpp_kw_1329_def mozcpp_kw_1330_def mozcpp_kw_1331_def mozcpp_kw_1332_def
    mozcpp_kw_1333_def mozcpp_kw_1334_def mozcpp_kw_1335_def mozcpp_kw_1336_def
    mozcpp_kw_1337_def mozcpp_kw_1338_def mozcpp_kw_1339_def mozcpp_kw_1340_def
    mozcpp_kw_1341_def mozcpp_kw_1342_def mozcpp_kw_1343_def mozcpp_kw_1344_def
    mozcpp_kw_1345_def mozcpp_kw_1346_def mozcpp_kw_1347_def mozcpp_kw_1348_def
    mozcpp_kw_1349_def mozcpp_kw_1350_def mozcpp_kw_1351_def mozcpp_kw_1352_def
    mozcpp_kw_1353_def mozcpp_kw_1354_def mozcpp_kw_1355_def mozcpp_kw_1356_def
    mozcpp_kw_1357_def mozcpp_kw_1358_def mozcpp_kw_1359_def mozcpp_kw_1360_def
    mozcpp_kw_1361_def mozcpp_kw_1362_def mozcpp_kw_1363_def mozcpp_kw_1364_def
    mozcpp_kw_1365_def mozcpp_kw_1366_def mozcpp_kw_1367_def mozcpp_kw_1368_def
    mozcpp_kw_1369_def mozcpp_kw_1370_def mozcpp_kw_1371_def mozcpp_kw_1372_def
    mozcpp_kw_1373_def mozcpp_kw_1374_def mozcpp_kw_1375_def mozcpp_kw_1376_def
    mozcpp_kw_1377_def mozcpp_kw_1378_def mozcpp_kw_1379_def mozcpp_kw_1380_def
    mozcpp_kw_1381_def mozcpp_kw_1382_def mozcpp_kw_1383_def mozcpp_kw_1384_def
    mozcpp_kw_1385_def mozcpp_kw_1386_def mozcpp_kw_1387_def mozcpp_kw_1388_def
    mozcpp_kw_1389_def mozcpp_kw_1390_def mozcpp_kw_1391_def mozcpp_kw_1392_def
    mozcpp_kw_1393_def mozcpp_kw_1394_def mozcpp_kw_1395_def mozcpp_kw_1396_def
    mozcpp_kw_1397_def mozcpp_kw_1398_def mozcpp_kw_1399_def mozcpp_kw_1400_def
    mozcpp_kw_1401_def mozcpp_kw_1402_def mozcpp_kw_1403_def mozcpp_kw_1404_def
    mozcpp_kw_1405_def mozcpp_kw_1406_def mozcpp_kw_1407_def mozcpp_kw_1408_def
    mozcpp_kw_1409_def mozcpp_kw_1410_def mozcpp_kw_1411_def mozcpp_kw_1412_def
    mozcpp_kw_1413_def mozcpp_kw_1414_def mozcpp_kw_1415_def mozcpp_kw_1416_def
    mozcpp_kw_1417_def mozcpp_kw_1418_def mozcpp_kw_1419_def mozcpp_kw_1420_def
    mozcpp_kw_1421_def mozcpp_kw_1422_def mozcpp_kw_1423_def mozcpp_kw_1424_def
    mozcpp_kw_1425_def mozcpp_kw_1426_def mozcpp_kw_1427_def mozcpp_kw_1428_def
    mozcpp_kw_1429_def mozcpp_kw_1430_def mozcpp_kw_1431_def mozcpp_kw_1432_def
    mozcpp_kw_1433_def mozcpp_kw_1434_def mozcpp_kw_1435_def mozcpp_kw_1436_def
    mozcpp_kw_1437_def mozcpp_kw_1438_def mozcpp_kw_1439_def mozcpp_kw_1440_def
    mozcpp_kw_1441_def mozcpp_kw_1442_def mozcpp_kw_1443_def mozcpp_kw_1444_def
    mozcpp_kw_1445_def mozcpp_kw_1446_def mozcpp_kw_1447_def mozcpp_kw_1448_def
    mozcpp_kw_1449_def mozcpp_kw_1450_def mozcpp_kw_1451_def mozcpp_kw_1452_def
    mozcpp_kw_1453_def mozcpp_kw_1454_def mozcpp_kw_1455_def mozcpp_kw_1456_def
    mozcpp_kw_1457_def mozcpp_kw_1458_def mozcpp_kw_1459_def mozcpp_kw_1460_def
    mozcpp_kw_1461_def mozcpp_kw_1462_def mozcpp_kw_1463_def mozcpp_kw_1464_def
    mozcpp_kw_1465_def mozcpp_kw_1466_def mozcpp_kw_1467_def mozcpp_kw_1468_def
    mozcpp_kw_1469_def mozcpp_kw_1470_def mozcpp_kw_1471_def mozcpp_kw_1472_def
    mozcpp_kw_1473_def mozcpp_kw_1474_def mozcpp_kw_1475_def mozcpp_kw_1476_def
    mozcpp_kw_1477_def mozcpp_kw_1478_def mozcpp_kw_1479_def mozcpp_kw_1480_def
    mozcpp_kw_1481_def mozcpp_kw_1482_def mozcpp_kw_1483_def mozcpp_kw_1484_def
    mozcpp_kw_1485_def mozcpp_kw_1486_def mozcpp_kw_1487_def mozcpp_kw_1488_def
    mozcpp_kw_1489_def mozcpp_kw_1490_def mozcpp_kw_1491_def mozcpp_kw_1492_def
    mozcpp_kw_1493_def mozcpp_kw_1494_def mozcpp_kw_1495_def mozcpp_kw_1496_def
    mozcpp_kw_1497_def mozcpp_kw_1498_def mozcpp_kw_1499_def mozcpp_kw_1500_def
    mozcpp_kw_1501_def mozcpp_kw_1502_def mozcpp_kw_1503_def mozcpp_kw_1504_def
    mozcpp_kw_1505_def mozcpp_kw_1506_def mozcpp_kw_1507_def mozcpp_kw_1508_def
    mozcpp_kw_1509_def mozcpp_kw_1510_def mozcpp_kw_1511_def mozcpp_kw_1512_def
    mozcpp_kw_1513_def mozcpp_kw_1514_def mozcpp_kw_1515_def mozcpp_kw_1516_def
    mozcpp_kw_1517_def mozcpp_kw_1518_def mozcpp_kw_1519_def mozcpp_kw_1520_def
    mozcpp_kw_1521_def mozcpp_kw_1522_def mozcpp_kw_1523_def mozcpp_kw_1524_def
    mozcpp_kw_1525_def mozcpp_kw_1526_def mozcpp_kw_1527_def mozcpp_kw_1528_def
    mozcpp_kw_1529_def mozcpp_kw_1530_def mozcpp_kw_1531_def mozcpp_kw_1532_def
    mozcpp_kw_1533_def mozcpp_kw_1534_def mozcpp_kw_1535_def mozcpp_kw_1536_def
    mozcpp_kw_1537_def mozcpp_kw_1538_def mozcpp_kw_1539_def mozcpp_kw_1540_def
    mozcpp_kw_1541_def mozcpp_kw_1542_def mozcpp_kw_1543_def mozcpp_kw_1544_def
    mozcpp_kw_1545_def mozcpp_kw_1546_def mozcpp_kw_1547_def mozcpp_kw_1548_def
    mozcpp_kw_1549_def mozcpp_kw_1550_def mozcpp_kw_1551_def mozcpp_kw_1552_def
    mozcpp_kw_1553_def mozcpp_kw_1554_def mozcpp_kw_1555_def mozcpp_kw_1556_def
    mozcpp_kw_1557_def mozcpp_kw_1558_def mozcpp_kw_1559_def mozcpp_kw_1560_def
    mozcpp_kw_1561_def mozcpp_kw_1562_def mozcpp_kw_1563_def mozcpp_kw_1564_def
    mozcpp_kw_1565_def mozcpp_kw_1566_def mozcpp_kw_1567_def mozcpp_kw_1568_def
    mozcpp_kw_1569_def mozcpp_kw_1570_def mozcpp_kw_1571_def mozcpp_kw_1572_def
    mozcpp_kw_1573_def mozcpp_kw_1574_def mozcpp_kw_1575_def mozcpp_kw_1576_def
    mozcpp_kw_1577_def mozcpp_kw_1578_def mozcpp_kw_1579_def mozcpp_kw_1580_def
    mozcpp_kw_1581_def mozcpp_kw_1582_def mozcpp_kw_1583_def mozcpp_kw_1584_def
    mozcpp_kw_1585_def mozcpp_kw_1586_def mozcpp_kw_1587_def mozcpp_kw_1588_def
    mozcpp_kw_1589_def mozcpp_kw_1590_def mozcpp_kw_1591_def mozcpp_kw_1592_def
    mozcpp_kw_1593_def mozcpp_kw_1594_def mozcpp_kw_1595_def mozcpp_kw_1596_def
    mozcpp_kw_1597_def mozcpp_kw_1598_def mozcpp_kw_1599_def mozcpp_kw_1600_def
    mozcpp_kw_1601_def mozcpp_kw_1602_def mozcpp_kw_1603_def mozcpp_kw_1604_def
    mozcpp_kw_1605_def mozcpp_kw_1606_def mozcpp_kw_1607_def mozcpp_kw_1608_def
    mozcpp_kw_1609_def mozcpp_kw_1610_def mozcpp_kw_1611_def mozcpp_kw_1612_def
    mozcpp_kw_1613_def mozcpp_kw_1614_def mozcpp_kw_1615_def mozcpp_kw_1616_def
    mozcpp_kw_1617_def mozcpp_kw_1618_def mozcpp_kw_1619_def mozcpp_kw_1620_def
    mozcpp_kw_1621_def mozcpp_kw_1622_def mozcpp_kw_1623_def mozcpp_kw_1624_def
    mozcpp_kw_1625_def mozcpp_kw_1626_def mozcpp_kw_1627_def mozcpp_kw_1628_def
    mozcpp_kw_1629_def mozcpp_kw_1630_def mozcpp_kw_1631_def mozcpp_kw_1632_def
    mozcpp_kw_1633_def mozcpp_kw_1634_def mozcpp_kw_1635_def mozcpp_kw_1636_def
    mozcpp_kw_1637_def mozcpp_kw_1638_def mozcpp_kw_1639_def mozcpp_kw_1640_def
    mozcpp_kw_1641_def mozcpp_kw_1642_def mozcpp_kw_1643_def mozcpp_kw_1644_def
    mozcpp_kw_1645_def mozcpp_kw_1646_def mozcpp_kw_1647_def mozcpp_kw_1648_def
    mozcpp_kw_1649_def mozcpp_kw_1650_def mozcpp_kw_1651_def mozcpp_kw_1652_def
    mozcpp_kw_1653_def mozcpp_kw_1654_def mozcpp_kw_1655_def mozcpp_kw_1656_def
    mozcpp_kw_1657_def mozcpp_kw_1658_def mozcpp_kw_1659_def mozcpp_kw_1660_def
    mozcpp_kw_1661_def mozcpp_kw_1662_def mozcpp_kw_1663_def mozcpp_kw_1664_def
    mozcpp_kw_1665_def mozcpp_kw_1666_def mozcpp_kw_1667_def mozcpp_kw_1668_def
    mozcpp_kw_1669_def mozcpp_kw_1670_def mozcpp_kw_1671_def mozcpp_kw_1672_def
    mozcpp_kw_1673_def mozcpp_kw_1674_def mozcpp_kw_1675_def mozcpp_kw_1676_def
    mozcpp_kw_1677_def mozcpp_kw_1678_def mozcpp_kw_1679_def mozcpp_kw_1680_def
    mozcpp_kw_1681_def mozcpp_kw_1682_def mozcpp_kw_1683_def mozcpp_kw_1684_def
    mozcpp_kw_1685_def mozcpp_kw_1686_def mozcpp_kw_1687_def mozcpp_kw_1688_def
    mozcpp_kw_1689_def mozcpp_kw_1690_def mozcpp_kw_1691_def mozcpp_kw_1692_def
    mozcpp_kw_1693_def mozcpp_kw_1694_def mozcpp_kw_1695_def mozcpp_kw_1696_def
    mozcpp_kw_1697_def mozcpp_kw_1698_def mozcpp_kw_1699_def mozcpp_kw_1700_def
    mozcpp_kw_1701_def mozcpp_kw_1702_def mozcpp_kw_1703_def mozcpp_kw_1704_def
    mozcpp_kw_1705_def mozcpp_kw_1706_def mozcpp_kw_1707_def mozcpp_kw_1708_def
    mozcpp_kw_1709_def mozcpp_kw_1710_def mozcpp_kw_1711_def mozcpp_kw_1712_def
    mozcpp_kw_1713_def mozcpp_kw_1714_def mozcpp_kw_1715_def mozcpp_kw_1716_def
    mozcpp_kw_1717_def mozcpp_kw_1718_def mozcpp_kw_1719_def mozcpp_kw_1720_def
    mozcpp_kw_1721_def mozcpp_kw_1722_def mozcpp_kw_1723_def mozcpp_kw_1724_def
    mozcpp_kw_1725_def mozcpp_kw_1726_def mozcpp_kw_1727_def mozcpp_kw_1728_def
    mozcpp_kw_1729_def mozcpp_kw_1730_def mozcpp_kw_1731_def mozcpp_kw_1732_def
    mozcpp_kw_1733_def mozcpp_kw_1734_def mozcpp_kw_1735_def mozcpp_kw_1736_def
    mozcpp_kw_1737_def mozcpp_kw_1738_def mozcpp_kw_1739_def mozcpp_kw_1740_def
    mozcpp_kw_1741_def mozcpp_kw_1742_def mozcpp_kw_1743_def mozcpp_kw_1744_def
    mozcpp_kw_1745_def mozcpp_kw_1746_def mozcpp_kw_1747_def mozcpp_kw_1748_def
    mozcpp_kw_1749_def mozcpp_kw_1750_def mozcpp_kw_1751_def mozcpp_kw_1752_def
    mozcpp_kw_1753_def mozcpp_kw_1754_def mozcpp_kw_1755_def mozcpp_kw_1756_def
    mozcpp_kw_1757_def mozcpp_kw_1758_def mozcpp_kw_1759_def mozcpp_kw_1760_def
    mozcpp_kw_1761_def mozcpp_kw_1762_def mozcpp_kw_1763_def mozcpp_kw_1764_def
    mozcpp_kw_1765_def mozcpp_kw_1766_def mozcpp_kw_1767_def mozcpp_kw_1768_def
    mozcpp_kw_1769_def mozcpp_kw_1770_def mozcpp_kw_1771_def mozcpp_kw_1772_def
    mozcpp_kw_1773_def mozcpp_kw_1774_def mozcpp_kw_1775_def mozcpp_kw_1776_def
    mozcpp_kw_1777_def mozcpp_kw_1778_def mozcpp_kw_1779_def mozcpp_kw_1780_def
    mozcpp_kw_1781_def mozcpp_kw_1782_def mozcpp_kw_1783_def mozcpp_kw_1784_def
    mozcpp_kw_1785_def mozcpp_kw_1786_def mozcpp_kw_1787_def mozcpp_kw_1788_def
    mozcpp_kw_1789_def mozcpp_kw_1790_def mozcpp_kw_1791_def mozcpp_kw_1792_def
    mozcpp_kw_1793_def mozcpp_kw_1794_def mozcpp_kw_1795_def mozcpp_kw_1796_def
    mozcpp_kw_1797_def mozcpp_kw_1798_def mozcpp_kw_1799_def mozcpp_kw_1800_def
    mozcpp_kw_1801_def mozcpp_kw_1802_def mozcpp_kw_1803_def mozcpp_kw_1804_def
    mozcpp_kw_1805_def mozcpp_kw_1806_def mozcpp_kw_1807_def mozcpp_kw_1808_def
    mozcpp_kw_1809_def mozcpp_kw_1810_def mozcpp_kw_1811_def mozcpp_kw_1812_def
    mozcpp_kw_1813_def mozcpp_kw_1814_def mozcpp_kw_1815_def mozcpp_kw_1816_def mozcpp_kw_1817_def

section \<open>The switch is closed\<close>

interpretation mozcpp_keyword: case_switch mozcpp_ts_lex_keywords 1818 mozcpp_kw_cases
proof
  show "mozcpp_ts_lex_keywords s e c = (if s < 1818 then Some ((mozcpp_kw_cases ! s) e c) else None)" for s e c
    by (rule mozcpp_ts_lex_keywords_def)
  show "length mozcpp_kw_cases = 1818"
    by (simp add: mozcpp_kw_list)
  show "list_all (\<lambda>f. \<forall>e c. goto_bounded 1818 (snd (f e c))) mozcpp_kw_cases"
    unfolding mozcpp_kw_list list.pred_inject mozcpp_kw_defs snd_conv
    by (intro conjI allI TrueI goto_bounded_intros; simp)
  show "list_all (eof_stop mozcpp_kw_cases) mozcpp_kw_cases"
    by (simp add: mozcpp_kw_list mozcpp_kw_defs eof_stop_def)
qed

lemmas mozcpp_keyword_auto = mozcpp_keyword.next_eq mozcpp_keyword.state_accepts_eq mozcpp_kw_list

end
