(* ===== verification/Generated_Lexers.thy ===== *)
theory Generated_Lexers
  imports Ccomment_Text Preproc_Text Tcl_Text Mozjs_Tokens Mozcpp_Keywords
begin

text \<open>The generated lexers of the five grammars, together.\<close>

definition generated_lexers :: "(lex_switch \<times> nat) list" where
  "generated_lexers =
    [(cc_ts_lex, 34), (pp_ts_lex, 115), (tcl_ts_lex, 206), (tcl_ts_lex_keywords, 61), (mozjs_ts_lex, 294),
     (mozjs_ts_lex_keywords, 200), (mozcpp_ts_lex, 1185), (mozcpp_ts_lex_keywords, 1818)]"

lemma generated_lexers_closed: "(sw, n) \<in> set generated_lexers \<Longrightarrow> closed_switch sw n"
  using cc_switch.closed_switch_axioms pp_switch.closed_switch_axioms tcl_switch.closed_switch_axioms
    tcl_keyword.closed_switch_axioms mozjs_switch.closed_switch_axioms mozjs_keyword.closed_switch_axioms
    mozcpp_switch.closed_switch_axioms mozcpp_keyword.closed_switch_axioms
  unfolding generated_lexers_def by auto

text \<open>
  Property C1. Every generated lexer of the repository implements maximal munch: started in any of its
  states on any text, it returns, and either it has recorded the longest token of the automaton at that
  state, with its end marked where that token ends, or no prefix of the text is a token.
\<close>

theorem generated_lexers_maximal_munch:
  assumes "text_runtime R ahead marked" and "(sw, n) \<in> set generated_lexers" and "s < n"
  shows "\<exists>r L'. lex_fn R sw s L = Some (r, L') \<and>
    (r \<longrightarrow> longest_token sw s (ahead (rt_state L)) (result_symbol L') (marked (rt_state L'))) \<and>
    (\<not> r \<longrightarrow> no_token sw s (ahead (rt_state L)))"
  by (rule lexer_on_text.lex_fn_longest [OF lexer_on_text.intro, OF assms(1) generated_lexers_closed, OF assms(2,3)])

theorem generated_lexers_maximal_munch_witness:
  "\<exists>r L'. lex_fn cursor_runtime mozcpp_ts_lex_keywords 0 (text_lexer [CH_i, CH_f]) = Some (r, L') \<and>
    (r \<longrightarrow> longest_token mozcpp_ts_lex_keywords 0 [CH_i, CH_f] (result_symbol L') (cur_marked (rt_state L'))) \<and>
    (\<not> r \<longrightarrow> no_token mozcpp_ts_lex_keywords 0 [CH_i, CH_f])"
  using generated_lexers_maximal_munch [OF cursor_text_runtime,
      of mozcpp_ts_lex_keywords 1818 0 "text_lexer [CH_i, CH_f]"]
  by (simp add: text_lexer_ahead generated_lexers_def)

end
