(* ===== verification/Mozjs_Symbols.thy ===== *)
theory Mozjs_Symbols
  imports Mozjs_Lex Lr_Tables
begin

text \<open>
  The tables of the JavaScript grammar (\<^verbatim>\<open>tree-sitter-mozjs/src/parser.c\<close>) that are indexed by
  symbols, productions and states: names and metadata, fields, aliases, primary states, lex modes and
  external tokens. Each list is the C initialiser, designators included; a member left out of one is zero.
\<close>

section \<open>Sizes\<close>

abbreviation (input) mozjs_LANGUAGE_VERSION :: nat where "mozjs_LANGUAGE_VERSION \<equiv> 14"
abbreviation (input) mozjs_STATE_COUNT :: nat where "mozjs_STATE_COUNT \<equiv> 1879"
abbreviation (input) mozjs_LARGE_STATE_COUNT :: nat where "mozjs_LARGE_STATE_COUNT \<equiv> 388"
abbreviation (input) mozjs_SYMBOL_COUNT :: nat where "mozjs_SYMBOL_COUNT \<equiv> 262"
abbreviation (input) mozjs_ALIAS_COUNT :: nat where "mozjs_ALIAS_COUNT \<equiv> 4"
abbreviation (input) mozjs_TOKEN_COUNT :: nat where "mozjs_TOKEN_COUNT \<equiv> 135"
abbreviation (input) mozjs_EXTERNAL_TOKEN_COUNT :: nat where "mozjs_EXTERNAL_TOKEN_COUNT \<equiv> 8"
abbreviation (input) mozjs_FIELD_COUNT :: nat where "mozjs_FIELD_COUNT \<equiv> 36"
abbreviation (input) mozjs_MAX_ALIAS_SEQUENCE_LENGTH :: nat where "mozjs_MAX_ALIAS_SEQUENCE_LENGTH \<equiv> 9"
abbreviation (input) mozjs_MAX_RESERVED_WORD_SET_SIZE :: nat where "mozjs_MAX_RESERVED_WORD_SET_SIZE \<equiv> 35"
abbreviation (input) mozjs_PRODUCTION_ID_COUNT :: nat where "mozjs_PRODUCTION_ID_COUNT \<equiv> 121"
abbreviation (input) mozjs_SUPERTYPE_COUNT :: nat where "mozjs_SUPERTYPE_COUNT \<equiv> 0"

section \<open>Symbols and fields\<close>

definition mozjs_ts_symbol_names :: "(nat \<times> string) list" where
  "mozjs_ts_symbol_names =
    [(ts_builtin_sym_end, ''end''),
     (mozjs_sym_identifier, ''identifier''),
     (mozjs_sym_hash_bang_line, ''hash_bang_line''),
     (mozjs_anon_sym_export, ''export''),
     (mozjs_anon_sym_STAR, ''*''),
     (mozjs_anon_sym_default, ''default''),
     (mozjs_anon_sym_as, ''as''),
     (mozjs_anon_sym_LBRACE, ''{''),
     (mozjs_anon_sym_COMMA, '',''),
     (mozjs_anon_sym_RBRACE, ''}''),
     (mozjs_anon_sym_import, ''import''),
     (mozjs_anon_sym_from, ''from''),
     (mozjs_anon_sym_with, ''with''),
     (mozjs_anon_sym_var, ''var''),
     (mozjs_anon_sym_let, ''let''),
     (mozjs_anon_sym_const, ''const''),
     (mozjs_anon_sym_using, ''using''),
     (mozjs_anon_sym_await, ''await''),
     (mozjs_anon_sym_of, ''of''),
     (mozjs_anon_sym_else, ''else''),
     (mozjs_anon_sym_if, ''if''),
     (mozjs_anon_sym_switch, ''switch''),
     (mozjs_anon_sym_for, ''for''),
     (mozjs_anon_sym_LPAREN, ''(''),
     (mozjs_anon_sym_SEMI, '';''),
     (mozjs_anon_sym_RPAREN, '')''),
     (mozjs_anon_sym_in, ''in''),
     (mozjs_anon_sym_while, ''while''),
     (mozjs_anon_sym_do, ''do''),
     (mozjs_anon_sym_try, ''try''),
     (mozjs_anon_sym_break, ''break''),
     (mozjs_anon_sym_continue, ''continue''),
     (mozjs_anon_sym_debugger, ''debugger''),
     (mozjs_anon_sym_return, ''return''),
     (mozjs_anon_sym_throw, ''throw''),
     (mozjs_anon_sym_COLON, '':''),
     (mozjs_anon_sym_case, ''case''),
     (mozjs_anon_sym_catch, ''catch''),
     (mozjs_anon_sym_finally, ''finally''),
     (mozjs_anon_sym_yield, ''yield''),
     (mozjs_anon_sym_EQ, ''=''),
     (mozjs_anon_sym_LBRACK, ''[''),
     (mozjs_anon_sym_RBRACK, '']''),
     (mozjs_sym_html_character_reference, ''html_character_reference''),
     (mozjs_anon_sym_LT, ''<''),
     (mozjs_anon_sym_GT, ''>''),
     (mozjs_sym_jsx_identifier, ''identifier''),
     (mozjs_anon_sym_DOT, ''.''),
     (mozjs_anon_sym_LT_SLASH, ''</''),
     (mozjs_anon_sym_SLASH_GT, ''/>''),
     (mozjs_anon_sym_DQUOTE, [CHR 0x22]),
     (mozjs_anon_sym_SQUOTE, [CHR 0x27]),
     (mozjs_sym_unescaped_double_jsx_string_fragment, ''string_fragment''),
     (mozjs_sym_unescaped_single_jsx_string_fragment, ''string_fragment''),
     (mozjs_anon_sym_class, ''class''),
     (mozjs_anon_sym_extends, ''extends''),
     (mozjs_anon_sym_async, ''async''),
     (mozjs_anon_sym_function, ''function''),
     (mozjs_anon_sym_EQ_GT, ''=>''),
     (mozjs_sym_optional_chain, ''optional_chain''),
     (mozjs_anon_sym_new, ''new''),
     (mozjs_anon_sym_PLUS_EQ, ''+=''),
     (mozjs_anon_sym_DASH_EQ, ''-=''),
     (mozjs_anon_sym_STAR_EQ, ''*=''),
     (mozjs_anon_sym_SLASH_EQ, ''/=''),
     (mozjs_anon_sym_PERCENT_EQ, ''%=''),
     (mozjs_anon_sym_CARET_EQ, ''^=''),
     (mozjs_anon_sym_AMP_EQ, ''&=''),
     (mozjs_anon_sym_PIPE_EQ, ''|=''),
     (mozjs_anon_sym_GT_GT_EQ, ''>>=''),
     (mozjs_anon_sym_GT_GT_GT_EQ, ''>>>=''),
     (mozjs_anon_sym_LT_LT_EQ, ''<<=''),
     (mozjs_anon_sym_STAR_STAR_EQ, ''**=''),
     (mozjs_anon_sym_AMP_AMP_EQ, ''&&=''),
     (mozjs_anon_sym_PIPE_PIPE_EQ, ''||=''),
     (mozjs_anon_sym_QMARK_QMARK_EQ, ''??=''),
     (mozjs_anon_sym_DOT_DOT_DOT, ''...''),
     (mozjs_anon_sym_AMP_AMP, ''&&''),
     (mozjs_anon_sym_PIPE_PIPE, ''||''),
     (mozjs_anon_sym_GT_GT, ''>>''),
     (mozjs_anon_sym_GT_GT_GT, ''>>>''),
     (mozjs_anon_sym_LT_LT, ''<<''),
     (mozjs_anon_sym_AMP, ''&''),
     (mozjs_anon_sym_CARET, ''^''),
     (mozjs_anon_sym_PIPE, ''|''),
     (mozjs_anon_sym_PLUS, ''+''),
     (mozjs_anon_sym_DASH, ''-''),
     (mozjs_anon_sym_SLASH, ''/''),
     (mozjs_anon_sym_PERCENT, ''%''),
     (mozjs_anon_sym_STAR_STAR, ''**''),
     (mozjs_anon_sym_LT_EQ, ''<=''),
     (mozjs_anon_sym_EQ_EQ, ''==''),
     (mozjs_anon_sym_EQ_EQ_EQ, ''===''),
     (mozjs_anon_sym_BANG_EQ, ''!=''),
     (mozjs_anon_sym_BANG_EQ_EQ, ''!==''),
     (mozjs_anon_sym_GT_EQ, ''>=''),
     (mozjs_anon_sym_QMARK_QMARK, ''??''),
     (mozjs_anon_sym_instanceof, ''instanceof''),
     (mozjs_anon_sym_BANG, ''!''),
     (mozjs_anon_sym_TILDE, ''~''),
     (mozjs_anon_sym_typeof, ''typeof''),
     (mozjs_anon_sym_void, ''void''),
     (mozjs_anon_sym_delete, ''delete''),
     (mozjs_anon_sym_PLUS_PLUS, ''++''),
     (mozjs_anon_sym_DASH_DASH, ''--''),
     (mozjs_sym_unescaped_double_string_fragment, ''string_fragment''),
     (mozjs_sym_unescaped_single_string_fragment, ''string_fragment''),
     (mozjs_sym_escape_sequence, ''escape_sequence''),
     (mozjs_sym_comment, ''comment''),
     (mozjs_anon_sym_BQUOTE, ''`''),
     (mozjs_anon_sym_DOLLAR_LBRACE, ''${''),
     (mozjs_anon_sym_SLASH2, ''/''),
     (mozjs_sym_regex_pattern, ''regex_pattern''),
     (mozjs_sym_regex_flags, ''regex_flags''),
     (mozjs_sym_number, ''number''),
     (mozjs_sym_private_property_identifier, ''private_property_identifier''),
     (mozjs_anon_sym_target, ''target''),
     (mozjs_anon_sym_meta, ''meta''),
     (mozjs_sym_this, ''this''),
     (mozjs_sym_super, ''super''),
     (mozjs_sym_true, ''true''),
     (mozjs_sym_false, ''false''),
     (mozjs_sym_null, ''null''),
     (mozjs_sym_undefined, ''undefined''),
     (mozjs_anon_sym_AT, ''@''),
     (mozjs_anon_sym_static, ''static''),
     (mozjs_aux_sym_method_definition_token1, ''static get''),
     (mozjs_anon_sym_get, ''get''),
     (mozjs_anon_sym_set, ''set''),
     (mozjs_sym_preproc, ''preproc''),
     (mozjs_sym__automatic_semicolon, ''_automatic_semicolon''),
     (mozjs_sym__template_chars, ''string_fragment''),
     (mozjs_sym__ternary_qmark, ''?''),
     (mozjs_sym_html_comment, ''html_comment''),
     (mozjs_sym_jsx_text, ''jsx_text''),
     (mozjs_sym_program, ''program''),
     (mozjs_sym_export_statement, ''export_statement''),
     (mozjs_sym_namespace_export, ''namespace_export''),
     (mozjs_sym_export_clause, ''export_clause''),
     (mozjs_sym_export_specifier, ''export_specifier''),
     (mozjs_sym__module_export_name, ''_module_export_name''),
     (mozjs_sym_declaration, ''declaration''),
     (mozjs_sym_import, ''import''),
     (mozjs_sym_import_statement, ''import_statement''),
     (mozjs_sym_import_clause, ''import_clause''),
     (mozjs_sym__from_clause, ''_from_clause''),
     (mozjs_sym_namespace_import, ''namespace_import''),
     (mozjs_sym_named_imports, ''named_imports''),
     (mozjs_sym_import_specifier, ''import_specifier''),
     (mozjs_sym_import_attribute, ''import_attribute''),
     (mozjs_sym_statement, ''statement''),
     (mozjs_sym_expression_statement, ''expression_statement''),
     (mozjs_sym_variable_declaration, ''variable_declaration''),
     (mozjs_sym_lexical_declaration, ''lexical_declaration''),
     (mozjs_sym_using_declaration, ''using_declaration''),
     (mozjs_sym_variable_declarator, ''variable_declarator''),
     (mozjs_sym_statement_block, ''statement_block''),
     (mozjs_sym_else_clause, ''else_clause''),
     (mozjs_sym_if_statement, ''if_statement''),
     (mozjs_sym_switch_statement, ''switch_statement''),
     (mozjs_sym_for_statement, ''for_statement''),
     (mozjs_sym_for_in_statement, ''for_in_statement''),
     (mozjs_sym__for_header, ''_for_header''),
     (mozjs_sym_while_statement, ''while_statement''),
     (mozjs_sym_do_statement, ''do_statement''),
     (mozjs_sym_try_statement, ''try_statement''),
     (mozjs_sym_with_statement, ''with_statement''),
     (mozjs_sym_break_statement, ''break_statement''),
     (mozjs_sym_continue_statement, ''continue_statement''),
     (mozjs_sym_debugger_statement, ''debugger_statement''),
     (mozjs_sym_return_statement, ''return_statement''),
     (mozjs_sym_throw_statement, ''throw_statement''),
     (mozjs_sym_empty_statement, ''empty_statement''),
     (mozjs_sym_labeled_statement, ''labeled_statement''),
     (mozjs_sym_switch_body, ''switch_body''),
     (mozjs_sym_switch_case, ''switch_case''),
     (mozjs_sym_switch_default, ''switch_default''),
     (mozjs_sym_catch_clause, ''catch_clause''),
     (mozjs_sym_finally_clause, ''finally_clause''),
     (mozjs_sym_parenthesized_expression, ''parenthesized_expression''),
     (mozjs_sym_expression, ''expression''),
     (mozjs_sym_primary_expression, ''primary_expression''),
     (mozjs_sym_yield_expression, ''yield_expression''),
     (mozjs_sym_object, ''object''),
     (mozjs_sym_object_pattern, ''object_pattern''),
     (mozjs_sym_assignment_pattern, ''assignment_pattern''),
     (mozjs_sym_object_assignment_pattern, ''object_assignment_pattern''),
     (mozjs_sym_array, ''array''),
     (mozjs_sym_array_pattern, ''array_pattern''),
     (mozjs_sym_jsx_element, ''jsx_element''),
     (mozjs_sym_jsx_expression, ''jsx_expression''),
     (mozjs_sym_jsx_opening_element, ''jsx_opening_element''),
     (mozjs_sym_nested_identifier, ''member_expression''),
     (mozjs_sym_jsx_namespace_name, ''jsx_namespace_name''),
     (mozjs_sym_jsx_closing_element, ''jsx_closing_element''),
     (mozjs_sym_jsx_self_closing_element, ''jsx_self_closing_element''),
     (mozjs_sym_jsx_attribute, ''jsx_attribute''),
     (mozjs_sym__jsx_string, ''string''),
     (mozjs_sym_class, ''class''),
     (mozjs_sym_class_declaration, ''class_declaration''),
     (mozjs_sym_class_heritage, ''class_heritage''),
     (mozjs_sym_function_expression, ''function_expression''),
     (mozjs_sym_function_declaration, ''function_declaration''),
     (mozjs_sym_generator_function, ''generator_function''),
     (mozjs_sym_generator_function_declaration, ''generator_function_declaration''),
     (mozjs_sym_arrow_function, ''arrow_function''),
     (mozjs_sym_call_expression, ''call_expression''),
     (mozjs_sym_new_expression, ''new_expression''),
     (mozjs_sym_await_expression, ''await_expression''),
     (mozjs_sym_member_expression, ''member_expression''),
     (mozjs_sym_subscript_expression, ''subscript_expression''),
     (mozjs_sym_assignment_expression, ''assignment_expression''),
     (mozjs_sym__augmented_assignment_lhs, ''_augmented_assignment_lhs''),
     (mozjs_sym_augmented_assignment_expression, ''augmented_assignment_expression''),
     (mozjs_sym__initializer, ''_initializer''),
     (mozjs_sym__destructuring_pattern, ''_destructuring_pattern''),
     (mozjs_sym_spread_element, ''spread_element''),
     (mozjs_sym_ternary_expression, ''ternary_expression''),
     (mozjs_sym_binary_expression, ''binary_expression''),
     (mozjs_sym_unary_expression, ''unary_expression''),
     (mozjs_sym_update_expression, ''update_expression''),
     (mozjs_sym_sequence_expression, ''sequence_expression''),
     (mozjs_sym_string, ''string''),
     (mozjs_sym_template_string, ''template_string''),
     (mozjs_sym_template_substitution, ''template_substitution''),
     (mozjs_sym_regex, ''regex''),
     (mozjs_sym_meta_property, ''meta_property''),
     (mozjs_sym_arguments, ''arguments''),
     (mozjs_sym_decorator, ''decorator''),
     (mozjs_sym_decorator_member_expression, ''member_expression''),
     (mozjs_sym_decorator_call_expression, ''call_expression''),
     (mozjs_sym_class_body, ''class_body''),
     (mozjs_sym_field_definition, ''field_definition''),
     (mozjs_sym_formal_parameters, ''formal_parameters''),
     (mozjs_sym_class_static_block, ''class_static_block''),
     (mozjs_sym_pattern, ''pattern''),
     (mozjs_sym_rest_pattern, ''rest_pattern''),
     (mozjs_sym_method_definition, ''method_definition''),
     (mozjs_sym_pair, ''pair''),
     (mozjs_sym_pair_pattern, ''pair_pattern''),
     (mozjs_sym__property_name, ''_property_name''),
     (mozjs_sym_computed_property_name, ''computed_property_name''),
     (mozjs_aux_sym_program_repeat1, ''program_repeat1''),
     (mozjs_aux_sym_export_statement_repeat1, ''export_statement_repeat1''),
     (mozjs_aux_sym_export_clause_repeat1, ''export_clause_repeat1''),
     (mozjs_aux_sym_named_imports_repeat1, ''named_imports_repeat1''),
     (mozjs_aux_sym_variable_declaration_repeat1, ''variable_declaration_repeat1''),
     (mozjs_aux_sym_switch_body_repeat1, ''switch_body_repeat1''),
     (mozjs_aux_sym_object_repeat1, ''object_repeat1''),
     (mozjs_aux_sym_object_pattern_repeat1, ''object_pattern_repeat1''),
     (mozjs_aux_sym_array_repeat1, ''array_repeat1''),
     (mozjs_aux_sym_array_pattern_repeat1, ''array_pattern_repeat1''),
     (mozjs_aux_sym_jsx_element_repeat1, ''jsx_element_repeat1''),
     (mozjs_aux_sym_jsx_opening_element_repeat1, ''jsx_opening_element_repeat1''),
     (mozjs_aux_sym__jsx_string_repeat1, ''_jsx_string_repeat1''),
     (mozjs_aux_sym__jsx_string_repeat2, ''_jsx_string_repeat2''),
     (mozjs_aux_sym_sequence_expression_repeat1, ''sequence_expression_repeat1''),
     (mozjs_aux_sym_string_repeat1, ''string_repeat1''),
     (mozjs_aux_sym_string_repeat2, ''string_repeat2''),
     (mozjs_aux_sym_template_string_repeat1, ''template_string_repeat1''),
     (mozjs_aux_sym_class_body_repeat1, ''class_body_repeat1''),
     (mozjs_aux_sym_formal_parameters_repeat1, ''formal_parameters_repeat1''),
     (mozjs_alias_sym_property_identifier, ''property_identifier''),
     (mozjs_alias_sym_shorthand_property_identifier, ''shorthand_property_identifier''),
     (mozjs_alias_sym_shorthand_property_identifier_pattern,
       ''shorthand_property_identifier_pattern''),
     (mozjs_alias_sym_statement_identifier, ''statement_identifier'')]"

definition mozjs_ts_symbol_map :: "(nat \<times> TSSymbol) list" where
  "mozjs_ts_symbol_map =
    [(ts_builtin_sym_end, ts_builtin_sym_end),
     (mozjs_sym_identifier, mozjs_sym_identifier),
     (mozjs_sym_hash_bang_line, mozjs_sym_hash_bang_line),
     (mozjs_anon_sym_export, mozjs_anon_sym_export),
     (mozjs_anon_sym_STAR, mozjs_anon_sym_STAR),
     (mozjs_anon_sym_default, mozjs_anon_sym_default),
     (mozjs_anon_sym_as, mozjs_anon_sym_as),
     (mozjs_anon_sym_LBRACE, mozjs_anon_sym_LBRACE),
     (mozjs_anon_sym_COMMA, mozjs_anon_sym_COMMA),
     (mozjs_anon_sym_RBRACE, mozjs_anon_sym_RBRACE),
     (mozjs_anon_sym_import, mozjs_anon_sym_import),
     (mozjs_anon_sym_from, mozjs_anon_sym_from),
     (mozjs_anon_sym_with, mozjs_anon_sym_with),
     (mozjs_anon_sym_var, mozjs_anon_sym_var),
     (mozjs_anon_sym_let, mozjs_anon_sym_let),
     (mozjs_anon_sym_const, mozjs_anon_sym_const),
     (mozjs_anon_sym_using, mozjs_anon_sym_using),
     (mozjs_anon_sym_await, mozjs_anon_sym_await),
     (mozjs_anon_sym_of, mozjs_anon_sym_of),
     (mozjs_anon_sym_else, mozjs_anon_sym_else),
     (mozjs_anon_sym_if, mozjs_anon_sym_if),
     (mozjs_anon_sym_switch, mozjs_anon_sym_switch),
     (mozjs_anon_sym_for, mozjs_anon_sym_for),
     (mozjs_anon_sym_LPAREN, mozjs_anon_sym_LPAREN),
     (mozjs_anon_sym_SEMI, mozjs_anon_sym_SEMI),
     (mozjs_anon_sym_RPAREN, mozjs_anon_sym_RPAREN),
     (mozjs_anon_sym_in, mozjs_anon_sym_in),
     (mozjs_anon_sym_while, mozjs_anon_sym_while),
     (mozjs_anon_sym_do, mozjs_anon_sym_do),
     (mozjs_anon_sym_try, mozjs_anon_sym_try),
     (mozjs_anon_sym_break, mozjs_anon_sym_break),
     (mozjs_anon_sym_continue, mozjs_anon_sym_continue),
     (mozjs_anon_sym_debugger, mozjs_anon_sym_debugger),
     (mozjs_anon_sym_return, mozjs_anon_sym_return),
     (mozjs_anon_sym_throw, mozjs_anon_sym_throw),
     (mozjs_anon_sym_COLON, mozjs_anon_sym_COLON),
     (mozjs_anon_sym_case, mozjs_anon_sym_case),
     (mozjs_anon_sym_catch, mozjs_anon_sym_catch),
     (mozjs_anon_sym_finally, mozjs_anon_sym_finally),
     (mozjs_anon_sym_yield, mozjs_anon_sym_yield),
     (mozjs_anon_sym_EQ, mozjs_anon_sym_EQ),
     (mozjs_anon_sym_LBRACK, mozjs_anon_sym_LBRACK),
     (mozjs_anon_sym_RBRACK, mozjs_anon_sym_RBRACK),
     (mozjs_sym_html_character_reference, mozjs_sym_html_character_reference),
     (mozjs_anon_sym_LT, mozjs_anon_sym_LT),
     (mozjs_anon_sym_GT, mozjs_anon_sym_GT),
     (mozjs_sym_jsx_identifier, mozjs_sym_identifier),
     (mozjs_anon_sym_DOT, mozjs_anon_sym_DOT),
     (mozjs_anon_sym_LT_SLASH, mozjs_anon_sym_LT_SLASH),
     (mozjs_anon_sym_SLASH_GT, mozjs_anon_sym_SLASH_GT),
     (mozjs_anon_sym_DQUOTE, mozjs_anon_sym_DQUOTE),
     (mozjs_anon_sym_SQUOTE, mozjs_anon_sym_SQUOTE),
     (mozjs_sym_unescaped_double_jsx_string_fragment, mozjs_sym__template_chars),
     (mozjs_sym_unescaped_single_jsx_string_fragment, mozjs_sym__template_chars),
     (mozjs_anon_sym_class, mozjs_anon_sym_class),
     (mozjs_anon_sym_extends, mozjs_anon_sym_extends),
     (mozjs_anon_sym_async, mozjs_anon_sym_async),
     (mozjs_anon_sym_function, mozjs_anon_sym_function),
     (mozjs_anon_sym_EQ_GT, mozjs_anon_sym_EQ_GT),
     (mozjs_sym_optional_chain, mozjs_sym_optional_chain),
     (mozjs_anon_sym_new, mozjs_anon_sym_new),
     (mozjs_anon_sym_PLUS_EQ, mozjs_anon_sym_PLUS_EQ),
     (mozjs_anon_sym_DASH_EQ, mozjs_anon_sym_DASH_EQ),
     (mozjs_anon_sym_STAR_EQ, mozjs_anon_sym_STAR_EQ),
     (mozjs_anon_sym_SLASH_EQ, mozjs_anon_sym_SLASH_EQ),
     (mozjs_anon_sym_PERCENT_EQ, mozjs_anon_sym_PERCENT_EQ),
     (mozjs_anon_sym_CARET_EQ, mozjs_anon_sym_CARET_EQ),
     (mozjs_anon_sym_AMP_EQ, mozjs_anon_sym_AMP_EQ),
     (mozjs_anon_sym_PIPE_EQ, mozjs_anon_sym_PIPE_EQ),
     (mozjs_anon_sym_GT_GT_EQ, mozjs_anon_sym_GT_GT_EQ),
     (mozjs_anon_sym_GT_GT_GT_EQ, mozjs_anon_sym_GT_GT_GT_EQ),
     (mozjs_anon_sym_LT_LT_EQ, mozjs_anon_sym_LT_LT_EQ),
     (mozjs_anon_sym_STAR_STAR_EQ, mozjs_anon_sym_STAR_STAR_EQ),
     (mozjs_anon_sym_AMP_AMP_EQ, mozjs_anon_sym_AMP_AMP_EQ),
     (mozjs_anon_sym_PIPE_PIPE_EQ, mozjs_anon_sym_PIPE_PIPE_EQ),
     (mozjs_anon_sym_QMARK_QMARK_EQ, mozjs_anon_sym_QMARK_QMARK_EQ),
     (mozjs_anon_sym_DOT_DOT_DOT, mozjs_anon_sym_DOT_DOT_DOT),
     (mozjs_anon_sym_AMP_AMP, mozjs_anon_sym_AMP_AMP),
     (mozjs_anon_sym_PIPE_PIPE, mozjs_anon_sym_PIPE_PIPE),
     (mozjs_anon_sym_GT_GT, mozjs_anon_sym_GT_GT),
     (mozjs_anon_sym_GT_GT_GT, mozjs_anon_sym_GT_GT_GT),
     (mozjs_anon_sym_LT_LT, mozjs_anon_sym_LT_LT),
     (mozjs_anon_sym_AMP, mozjs_anon_sym_AMP),
     (mozjs_anon_sym_CARET, mozjs_anon_sym_CARET),
     (mozjs_anon_sym_PIPE, mozjs_anon_sym_PIPE),
     (mozjs_anon_sym_PLUS, mozjs_anon_sym_PLUS),
     (mozjs_anon_sym_DASH, mozjs_anon_sym_DASH),
     (mozjs_anon_sym_SLASH, mozjs_anon_sym_SLASH),
     (mozjs_anon_sym_PERCENT, mozjs_anon_sym_PERCENT),
     (mozjs_anon_sym_STAR_STAR, mozjs_anon_sym_STAR_STAR),
     (mozjs_anon_sym_LT_EQ, mozjs_anon_sym_LT_EQ),
     (mozjs_anon_sym_EQ_EQ, mozjs_anon_sym_EQ_EQ),
     (mozjs_anon_sym_EQ_EQ_EQ, mozjs_anon_sym_EQ_EQ_EQ),
     (mozjs_anon_sym_BANG_EQ, mozjs_anon_sym_BANG_EQ),
     (mozjs_anon_sym_BANG_EQ_EQ, mozjs_anon_sym_BANG_EQ_EQ),
     (mozjs_anon_sym_GT_EQ, mozjs_anon_sym_GT_EQ),
     (mozjs_anon_sym_QMARK_QMARK, mozjs_anon_sym_QMARK_QMARK),
     (mozjs_anon_sym_instanceof, mozjs_anon_sym_instanceof),
     (mozjs_anon_sym_BANG, mozjs_anon_sym_BANG),
     (mozjs_anon_sym_TILDE, mozjs_anon_sym_TILDE),
     (mozjs_anon_sym_typeof, mozjs_anon_sym_typeof),
     (mozjs_anon_sym_void, mozjs_anon_sym_void),
     (mozjs_anon_sym_delete, mozjs_anon_sym_delete),
     (mozjs_anon_sym_PLUS_PLUS, mozjs_anon_sym_PLUS_PLUS),
     (mozjs_anon_sym_DASH_DASH, mozjs_anon_sym_DASH_DASH),
     (mozjs_sym_unescaped_double_string_fragment, mozjs_sym__template_chars),
     (mozjs_sym_unescaped_single_string_fragment, mozjs_sym__template_chars),
     (mozjs_sym_escape_sequence, mozjs_sym_escape_sequence),
     (mozjs_sym_comment, mozjs_sym_comment),
     (mozjs_anon_sym_BQUOTE, mozjs_anon_sym_BQUOTE),
     (mozjs_anon_sym_DOLLAR_LBRACE, mozjs_anon_sym_DOLLAR_LBRACE),
     (mozjs_anon_sym_SLASH2, mozjs_anon_sym_SLASH),
     (mozjs_sym_regex_pattern, mozjs_sym_regex_pattern),
     (mozjs_sym_regex_flags, mozjs_sym_regex_flags),
     (mozjs_sym_number, mozjs_sym_number),
     (mozjs_sym_private_property_identifier, mozjs_sym_private_property_identifier),
     (mozjs_anon_sym_target, mozjs_anon_sym_target),
     (mozjs_anon_sym_meta, mozjs_anon_sym_meta),
     (mozjs_sym_this, mozjs_sym_this),
     (mozjs_sym_super, mozjs_sym_super),
     (mozjs_sym_true, mozjs_sym_true),
     (mozjs_sym_false, mozjs_sym_false),
     (mozjs_sym_null, mozjs_sym_null),
     (mozjs_sym_undefined, mozjs_sym_undefined),
     (mozjs_anon_sym_AT, mozjs_anon_sym_AT),
     (mozjs_anon_sym_static, mozjs_anon_sym_static),
     (mozjs_aux_sym_method_definition_token1, mozjs_aux_sym_method_definition_token1),
     (mozjs_anon_sym_get, mozjs_anon_sym_get),
     (mozjs_anon_sym_set, mozjs_anon_sym_set),
     (mozjs_sym_preproc, mozjs_sym_preproc),
     (mozjs_sym__automatic_semicolon, mozjs_sym__automatic_semicolon),
     (mozjs_sym__template_chars, mozjs_sym__template_chars),
     (mozjs_sym__ternary_qmark, mozjs_sym__ternary_qmark),
     (mozjs_sym_html_comment, mozjs_sym_html_comment),
     (mozjs_sym_jsx_text, mozjs_sym_jsx_text),
     (mozjs_sym_program, mozjs_sym_program),
     (mozjs_sym_export_statement, mozjs_sym_export_statement),
     (mozjs_sym_namespace_export, mozjs_sym_namespace_export),
     (mozjs_sym_export_clause, mozjs_sym_export_clause),
     (mozjs_sym_export_specifier, mozjs_sym_export_specifier),
     (mozjs_sym__module_export_name, mozjs_sym__module_export_name),
     (mozjs_sym_declaration, mozjs_sym_declaration),
     (mozjs_sym_import, mozjs_sym_import),
     (mozjs_sym_import_statement, mozjs_sym_import_statement),
     (mozjs_sym_import_clause, mozjs_sym_import_clause),
     (mozjs_sym__from_clause, mozjs_sym__from_clause),
     (mozjs_sym_namespace_import, mozjs_sym_namespace_import),
     (mozjs_sym_named_imports, mozjs_sym_named_imports),
     (mozjs_sym_import_specifier, mozjs_sym_import_specifier),
     (mozjs_sym_import_attribute, mozjs_sym_import_attribute),
     (mozjs_sym_statement, mozjs_sym_statement),
     (mozjs_sym_expression_statement, mozjs_sym_expression_statement),
     (mozjs_sym_variable_declaration, mozjs_sym_variable_declaration),
     (mozjs_sym_lexical_declaration, mozjs_sym_lexical_declaration),
     (mozjs_sym_using_declaration, mozjs_sym_using_declaration),
     (mozjs_sym_variable_declarator, mozjs_sym_variable_declarator),
     (mozjs_sym_statement_block, mozjs_sym_statement_block),
     (mozjs_sym_else_clause, mozjs_sym_else_clause),
     (mozjs_sym_if_statement, mozjs_sym_if_statement),
     (mozjs_sym_switch_statement, mozjs_sym_switch_statement),
     (mozjs_sym_for_statement, mozjs_sym_for_statement),
     (mozjs_sym_for_in_statement, mozjs_sym_for_in_statement),
     (mozjs_sym__for_header, mozjs_sym__for_header),
     (mozjs_sym_while_statement, mozjs_sym_while_statement),
     (mozjs_sym_do_statement, mozjs_sym_do_statement),
     (mozjs_sym_try_statement, mozjs_sym_try_statement),
     (mozjs_sym_with_statement, mozjs_sym_with_statement),
     (mozjs_sym_break_statement, mozjs_sym_break_statement),
     (mozjs_sym_continue_statement, mozjs_sym_continue_statement),
     (mozjs_sym_debugger_statement, mozjs_sym_debugger_statement),
     (mozjs_sym_return_statement, mozjs_sym_return_statement),
     (mozjs_sym_throw_statement, mozjs_sym_throw_statement),
     (mozjs_sym_empty_statement, mozjs_sym_empty_statement),
     (mozjs_sym_labeled_statement, mozjs_sym_labeled_statement),
     (mozjs_sym_switch_body, mozjs_sym_switch_body),
     (mozjs_sym_switch_case, mozjs_sym_switch_case),
     (mozjs_sym_switch_default, mozjs_sym_switch_default),
     (mozjs_sym_catch_clause, mozjs_sym_catch_clause),
     (mozjs_sym_finally_clause, mozjs_sym_finally_clause),
     (mozjs_sym_parenthesized_expression, mozjs_sym_parenthesized_expression),
     (mozjs_sym_expression, mozjs_sym_expression),
     (mozjs_sym_primary_expression, mozjs_sym_primary_expression),
     (mozjs_sym_yield_expression, mozjs_sym_yield_expression),
     (mozjs_sym_object, mozjs_sym_object),
     (mozjs_sym_object_pattern, mozjs_sym_object_pattern),
     (mozjs_sym_assignment_pattern, mozjs_sym_assignment_pattern),
     (mozjs_sym_object_assignment_pattern, mozjs_sym_object_assignment_pattern),
     (mozjs_sym_array, mozjs_sym_array),
     (mozjs_sym_array_pattern, mozjs_sym_array_pattern),
     (mozjs_sym_jsx_element, mozjs_sym_jsx_element),
     (mozjs_sym_jsx_expression, mozjs_sym_jsx_expression),
     (mozjs_sym_jsx_opening_element, mozjs_sym_jsx_opening_element),
     (mozjs_sym_nested_identifier, mozjs_sym_member_expression),
     (mozjs_sym_jsx_namespace_name, mozjs_sym_jsx_namespace_name),
     (mozjs_sym_jsx_closing_element, mozjs_sym_jsx_closing_element),
     (mozjs_sym_jsx_self_closing_element, mozjs_sym_jsx_self_closing_element),
     (mozjs_sym_jsx_attribute, mozjs_sym_jsx_attribute),
     (mozjs_sym__jsx_string, mozjs_sym_string),
     (mozjs_sym_class, mozjs_sym_class),
     (mozjs_sym_class_declaration, mozjs_sym_class_declaration),
     (mozjs_sym_class_heritage, mozjs_sym_class_heritage),
     (mozjs_sym_function_expression, mozjs_sym_function_expression),
     (mozjs_sym_function_declaration, mozjs_sym_function_declaration),
     (mozjs_sym_generator_function, mozjs_sym_generator_function),
     (mozjs_sym_generator_function_declaration, mozjs_sym_generator_function_declaration),
     (mozjs_sym_arrow_function, mozjs_sym_arrow_function),
     (mozjs_sym_call_expression, mozjs_sym_call_expression),
     (mozjs_sym_new_expression, mozjs_sym_new_expression),
     (mozjs_sym_await_expression, mozjs_sym_await_expression),
     (mozjs_sym_member_expression, mozjs_sym_member_expression),
     (mozjs_sym_subscript_expression, mozjs_sym_subscript_expression),
     (mozjs_sym_assignment_expression, mozjs_sym_assignment_expression),
     (mozjs_sym__augmented_assignment_lhs, mozjs_sym__augmented_assignment_lhs),
     (mozjs_sym_augmented_assignment_expression, mozjs_sym_augmented_assignment_expression),
     (mozjs_sym__initializer, mozjs_sym__initializer),
     (mozjs_sym__destructuring_pattern, mozjs_sym__destructuring_pattern),
     (mozjs_sym_spread_element, mozjs_sym_spread_element),
     (mozjs_sym_ternary_expression, mozjs_sym_ternary_expression),
     (mozjs_sym_binary_expression, mozjs_sym_binary_expression),
     (mozjs_sym_unary_expression, mozjs_sym_unary_expression),
     (mozjs_sym_update_expression, mozjs_sym_update_expression),
     (mozjs_sym_sequence_expression, mozjs_sym_sequence_expression),
     (mozjs_sym_string, mozjs_sym_string),
     (mozjs_sym_template_string, mozjs_sym_template_string),
     (mozjs_sym_template_substitution, mozjs_sym_template_substitution),
     (mozjs_sym_regex, mozjs_sym_regex),
     (mozjs_sym_meta_property, mozjs_sym_meta_property),
     (mozjs_sym_arguments, mozjs_sym_arguments),
     (mozjs_sym_decorator, mozjs_sym_decorator),
     (mozjs_sym_decorator_member_expression, mozjs_sym_member_expression),
     (mozjs_sym_decorator_call_expression, mozjs_sym_call_expression),
     (mozjs_sym_class_body, mozjs_sym_class_body),
     (mozjs_sym_field_definition, mozjs_sym_field_definition),
     (mozjs_sym_formal_parameters, mozjs_sym_formal_parameters),
     (mozjs_sym_class_static_block, mozjs_sym_class_static_block),
     (mozjs_sym_pattern, mozjs_sym_pattern),
     (mozjs_sym_rest_pattern, mozjs_sym_rest_pattern),
     (mozjs_sym_method_definition, mozjs_sym_method_definition),
     (mozjs_sym_pair, mozjs_sym_pair),
     (mozjs_sym_pair_pattern, mozjs_sym_pair_pattern),
     (mozjs_sym__property_name, mozjs_sym__property_name),
     (mozjs_sym_computed_property_name, mozjs_sym_computed_property_name),
     (mozjs_aux_sym_program_repeat1, mozjs_aux_sym_program_repeat1),
     (mozjs_aux_sym_export_statement_repeat1, mozjs_aux_sym_export_statement_repeat1),
     (mozjs_aux_sym_export_clause_repeat1, mozjs_aux_sym_export_clause_repeat1),
     (mozjs_aux_sym_named_imports_repeat1, mozjs_aux_sym_named_imports_repeat1),
     (mozjs_aux_sym_variable_declaration_repeat1, mozjs_aux_sym_variable_declaration_repeat1),
     (mozjs_aux_sym_switch_body_repeat1, mozjs_aux_sym_switch_body_repeat1),
     (mozjs_aux_sym_object_repeat1, mozjs_aux_sym_object_repeat1),
     (mozjs_aux_sym_object_pattern_repeat1, mozjs_aux_sym_object_pattern_repeat1),
     (mozjs_aux_sym_array_repeat1, mozjs_aux_sym_array_repeat1),
     (mozjs_aux_sym_array_pattern_repeat1, mozjs_aux_sym_array_pattern_repeat1),
     (mozjs_aux_sym_jsx_element_repeat1, mozjs_aux_sym_jsx_element_repeat1),
     (mozjs_aux_sym_jsx_opening_element_repeat1, mozjs_aux_sym_jsx_opening_element_repeat1),
     (mozjs_aux_sym__jsx_string_repeat1, mozjs_aux_sym__jsx_string_repeat1),
     (mozjs_aux_sym__jsx_string_repeat2, mozjs_aux_sym__jsx_string_repeat2),
     (mozjs_aux_sym_sequence_expression_repeat1, mozjs_aux_sym_sequence_expression_repeat1),
     (mozjs_aux_sym_string_repeat1, mozjs_aux_sym_string_repeat1),
     (mozjs_aux_sym_string_repeat2, mozjs_aux_sym_string_repeat2),
     (mozjs_aux_sym_template_string_repeat1, mozjs_aux_sym_template_string_repeat1),
     (mozjs_aux_sym_class_body_repeat1, mozjs_aux_sym_class_body_repeat1),
     (mozjs_aux_sym_formal_parameters_repeat1, mozjs_aux_sym_formal_parameters_repeat1),
     (mozjs_alias_sym_property_identifier, mozjs_alias_sym_property_identifier),
     (mozjs_alias_sym_shorthand_property_identifier,
       mozjs_alias_sym_shorthand_property_identifier),
     (mozjs_alias_sym_shorthand_property_identifier_pattern,
       mozjs_alias_sym_shorthand_property_identifier_pattern),
     (mozjs_alias_sym_statement_identifier, mozjs_alias_sym_statement_identifier)]"

definition mozjs_symbol_metadata_0 :: "(nat \<times> TSSymbolMetadata) list" where
  "mozjs_symbol_metadata_0 =
    [(ts_builtin_sym_end, \<lparr>visible = False, named = True, supertype = False\<rparr>),
     (mozjs_sym_identifier, \<lparr>visible = True, named = True, supertype = False\<rparr>),
     (mozjs_sym_hash_bang_line, \<lparr>visible = True, named = True, supertype = False\<rparr>),
     (mozjs_anon_sym_export, \<lparr>visible = True, named = False, supertype = False\<rparr>),
     (mozjs_anon_sym_STAR, \<lparr>visible = True, named = False, supertype = False\<rparr>),
     (mozjs_anon_sym_default, \<lparr>visible = True, named = False, supertype = False\<rparr>),
     (mozjs_anon_sym_as, \<lparr>visible = True, named = False, supertype = False\<rparr>),
     (mozjs_anon_sym_LBRACE, \<lparr>visible = True, named = False, supertype = False\<rparr>),
     (mozjs_anon_sym_COMMA, \<lparr>visible = True, named = False, supertype = False\<rparr>),
     (mozjs_anon_sym_RBRACE, \<lparr>visible = True, named = False, supertype = False\<rparr>),
     (mozjs_anon_sym_import, \<lparr>visible = True, named = False, supertype = False\<rparr>),
     (mozjs_anon_sym_from, \<lparr>visible = True, named = False, supertype = False\<rparr>),
     (mozjs_anon_sym_with, \<lparr>visible = True, named = False, supertype = False\<rparr>),
     (mozjs_anon_sym_var, \<lparr>visible = True, named = False, supertype = False\<rparr>),
     (mozjs_anon_sym_let, \<lparr>visible = True, named = False, supertype = False\<rparr>),
     (mozjs_anon_sym_const, \<lparr>visible = True, named = False, supertype = False\<rparr>),
     (mozjs_anon_sym_using, \<lparr>visible = True, named = False, supertype = False\<rparr>),
     (mozjs_anon_sym_await, \<lparr>visible = True, named = False, supertype = False\<rparr>),
     (mozjs_anon_sym_of, \<lparr>visible = True, named = False, supertype = False\<rparr>),
     (mozjs_anon_sym_else, \<lparr>visible = True, named = False, supertype = False\<rparr>),
     (mozjs_anon_sym_if, \<lparr>visible = True, named = False, supertype = False\<rparr>),
     (mozjs_anon_sym_switch, \<lparr>visible = True, named = False, supertype = False\<rparr>),
     (mozjs_anon_sym_for, \<lparr>visible = True, named = False, supertype = False\<rparr>),
     (mozjs_anon_sym_LPAREN, \<lparr>visible = True, named = False, supertype = False\<rparr>),
     (mozjs_anon_sym_SEMI, \<lparr>visible = True, named = False, supertype = False\<rparr>),
     (mozjs_anon_sym_RPAREN, \<lparr>visible = True, named = False, supertype = False\<rparr>),
     (mozjs_anon_sym_in, \<lparr>visible = True, named = False, supertype = False\<rparr>),
     (mozjs_anon_sym_while, \<lparr>visible = True, named = False, supertype = False\<rparr>),
     (mozjs_anon_sym_do, \<lparr>visible = True, named = False, supertype = False\<rparr>),
     (mozjs_anon_sym_try, \<lparr>visible = True, named = False, supertype = False\<rparr>)]"

definition mozjs_symbol_metadata_1 :: "(nat \<times> TSSymbolMetadata) list" where
  "mozjs_symbol_metadata_1 =
    [(mozjs_anon_sym_break, \<lparr>visible = True, named = False, supertype = False\<rparr>),
     (mozjs_anon_sym_continue, \<lparr>visible = True, named = False, supertype = False\<rparr>),
     (mozjs_anon_sym_debugger, \<lparr>visible = True, named = False, supertype = False\<rparr>),
     (mozjs_anon_sym_return, \<lparr>visible = True, named = False, supertype = False\<rparr>),
     (mozjs_anon_sym_throw, \<lparr>visible = True, named = False, supertype = False\<rparr>),
     (mozjs_anon_sym_COLON, \<lparr>visible = True, named = False, supertype = False\<rparr>),
     (mozjs_anon_sym_case, \<lparr>visible = True, named = False, supertype = False\<rparr>),
     (mozjs_anon_sym_catch, \<lparr>visible = True, named = False, supertype = False\<rparr>),
     (mozjs_anon_sym_finally, \<lparr>visible = True, named = False, supertype = False\<rparr>),
     (mozjs_anon_sym_yield, \<lparr>visible = True, named = False, supertype = False\<rparr>),
     (mozjs_anon_sym_EQ, \<lparr>visible = True, named = False, supertype = False\<rparr>),
     (mozjs_anon_sym_LBRACK, \<lparr>visible = True, named = False, supertype = False\<rparr>),
     (mozjs_anon_sym_RBRACK, \<lparr>visible = True, named = False, supertype = False\<rparr>),
     (mozjs_sym_html_character_reference, \<lparr>visible = True, named = True, supertype =
       False\<rparr>),
     (mozjs_anon_sym_LT, \<lparr>visible = True, named = False, supertype = False\<rparr>),
     (mozjs_anon_sym_GT, \<lparr>visible = True, named = False, supertype = False\<rparr>),
     (mozjs_sym_jsx_identifier, \<lparr>visible = True, named = True, supertype = False\<rparr>),
     (mozjs_anon_sym_DOT, \<lparr>visible = True, named = False, supertype = False\<rparr>),
     (mozjs_anon_sym_LT_SLASH, \<lparr>visible = True, named = False, supertype = False\<rparr>),
     (mozjs_anon_sym_SLASH_GT, \<lparr>visible = True, named = False, supertype = False\<rparr>),
     (mozjs_anon_sym_DQUOTE, \<lparr>visible = True, named = False, supertype = False\<rparr>),
     (mozjs_anon_sym_SQUOTE, \<lparr>visible = True, named = False, supertype = False\<rparr>),
     (mozjs_sym_unescaped_double_jsx_string_fragment, \<lparr>visible = True, named = True,
       supertype = False\<rparr>),
     (mozjs_sym_unescaped_single_jsx_string_fragment, \<lparr>visible = True, named = True,
       supertype = False\<rparr>),
     (mozjs_anon_sym_class, \<lparr>visible = True, named = False, supertype = False\<rparr>),
     (mozjs_anon_sym_extends, \<lparr>visible = True, named = False, supertype = False\<rparr>),
     (mozjs_anon_sym_async, \<lparr>visible = True, named = False, supertype = False\<rparr>),
     (mozjs_anon_sym_function, \<lparr>visible = True, named = False, supertype = False\<rparr>),
     (mozjs_anon_sym_EQ_GT, \<lparr>visible = True, named = False, supertype = False\<rparr>),
     (mozjs_sym_optional_chain, \<lparr>visible = True, named = True, supertype = False\<rparr>)]"

definition mozjs_symbol_metadata_2 :: "(nat \<times> TSSymbolMetadata) list" where
  "mozjs_symbol_metadata_2 =
    [(mozjs_anon_sym_new, \<lparr>visible = True, named = False, supertype = False\<rparr>),
     (mozjs_anon_sym_PLUS_EQ, \<lparr>visible = True, named = False, supertype = False\<rparr>),
     (mozjs_anon_sym_DASH_EQ, \<lparr>visible = True, named = False, supertype = False\<rparr>),
     (mozjs_anon_sym_STAR_EQ, \<lparr>visible = True, named = False, supertype = False\<rparr>),
     (mozjs_anon_sym_SLASH_EQ, \<lparr>visible = True, named = False, supertype = False\<rparr>),
     (mozjs_anon_sym_PERCENT_EQ, \<lparr>visible = True, named = False, supertype =
       False\<rparr>),
     (mozjs_anon_sym_CARET_EQ, \<lparr>visible = True, named = False, supertype = False\<rparr>),
     (mozjs_anon_sym_AMP_EQ, \<lparr>visible = True, named = False, supertype = False\<rparr>),
     (mozjs_anon_sym_PIPE_EQ, \<lparr>visible = True, named = False, supertype = False\<rparr>),
     (mozjs_anon_sym_GT_GT_EQ, \<lparr>visible = True, named = False, supertype = False\<rparr>),
     (mozjs_anon_sym_GT_GT_GT_EQ, \<lparr>visible = True, named = False, supertype =
       False\<rparr>),
     (mozjs_anon_sym_LT_LT_EQ, \<lparr>visible = True, named = False, supertype = False\<rparr>),
     (mozjs_anon_sym_STAR_STAR_EQ, \<lparr>visible = True, named = False, supertype =
       False\<rparr>),
     (mozjs_anon_sym_AMP_AMP_EQ, \<lparr>visible = True, named = False, supertype =
       False\<rparr>),
     (mozjs_anon_sym_PIPE_PIPE_EQ, \<lparr>visible = True, named = False, supertype =
       False\<rparr>),
     (mozjs_anon_sym_QMARK_QMARK_EQ, \<lparr>visible = True, named = False, supertype =
       False\<rparr>),
     (mozjs_anon_sym_DOT_DOT_DOT, \<lparr>visible = True, named = False, supertype =
       False\<rparr>),
     (mozjs_anon_sym_AMP_AMP, \<lparr>visible = True, named = False, supertype = False\<rparr>),
     (mozjs_anon_sym_PIPE_PIPE, \<lparr>visible = True, named = False, supertype = False\<rparr>),
     (mozjs_anon_sym_GT_GT, \<lparr>visible = True, named = False, supertype = False\<rparr>),
     (mozjs_anon_sym_GT_GT_GT, \<lparr>visible = True, named = False, supertype = False\<rparr>),
     (mozjs_anon_sym_LT_LT, \<lparr>visible = True, named = False, supertype = False\<rparr>),
     (mozjs_anon_sym_AMP, \<lparr>visible = True, named = False, supertype = False\<rparr>),
     (mozjs_anon_sym_CARET, \<lparr>visible = True, named = False, supertype = False\<rparr>),
     (mozjs_anon_sym_PIPE, \<lparr>visible = True, named = False, supertype = False\<rparr>),
     (mozjs_anon_sym_PLUS, \<lparr>visible = True, named = False, supertype = False\<rparr>),
     (mozjs_anon_sym_DASH, \<lparr>visible = True, named = False, supertype = False\<rparr>),
     (mozjs_anon_sym_SLASH, \<lparr>visible = True, named = False, supertype = False\<rparr>),
     (mozjs_anon_sym_PERCENT, \<lparr>visible = True, named = False, supertype = False\<rparr>),
     (mozjs_anon_sym_STAR_STAR, \<lparr>visible = True, named = False, supertype =
       False\<rparr>)]"

definition mozjs_symbol_metadata_3 :: "(nat \<times> TSSymbolMetadata) list" where
  "mozjs_symbol_metadata_3 =
    [(mozjs_anon_sym_LT_EQ, \<lparr>visible = True, named = False, supertype = False\<rparr>),
     (mozjs_anon_sym_EQ_EQ, \<lparr>visible = True, named = False, supertype = False\<rparr>),
     (mozjs_anon_sym_EQ_EQ_EQ, \<lparr>visible = True, named = False, supertype = False\<rparr>),
     (mozjs_anon_sym_BANG_EQ, \<lparr>visible = True, named = False, supertype = False\<rparr>),
     (mozjs_anon_sym_BANG_EQ_EQ, \<lparr>visible = True, named = False, supertype =
       False\<rparr>),
     (mozjs_anon_sym_GT_EQ, \<lparr>visible = True, named = False, supertype = False\<rparr>),
     (mozjs_anon_sym_QMARK_QMARK, \<lparr>visible = True, named = False, supertype =
       False\<rparr>),
     (mozjs_anon_sym_instanceof, \<lparr>visible = True, named = False, supertype =
       False\<rparr>),
     (mozjs_anon_sym_BANG, \<lparr>visible = True, named = False, supertype = False\<rparr>),
     (mozjs_anon_sym_TILDE, \<lparr>visible = True, named = False, supertype = False\<rparr>),
     (mozjs_anon_sym_typeof, \<lparr>visible = True, named = False, supertype = False\<rparr>),
     (mozjs_anon_sym_void, \<lparr>visible = True, named = False, supertype = False\<rparr>),
     (mozjs_anon_sym_delete, \<lparr>visible = True, named = False, supertype = False\<rparr>),
     (mozjs_anon_sym_PLUS_PLUS, \<lparr>visible = True, named = False, supertype = False\<rparr>),
     (mozjs_anon_sym_DASH_DASH, \<lparr>visible = True, named = False, supertype = False\<rparr>),
     (mozjs_sym_unescaped_double_string_fragment, \<lparr>visible = True, named = True, supertype
       = False\<rparr>),
     (mozjs_sym_unescaped_single_string_fragment, \<lparr>visible = True, named = True, supertype
       = False\<rparr>),
     (mozjs_sym_escape_sequence, \<lparr>visible = True, named = True, supertype = False\<rparr>),
     (mozjs_sym_comment, \<lparr>visible = True, named = True, supertype = False\<rparr>),
     (mozjs_anon_sym_BQUOTE, \<lparr>visible = True, named = False, supertype = False\<rparr>),
     (mozjs_anon_sym_DOLLAR_LBRACE, \<lparr>visible = True, named = False, supertype =
       False\<rparr>),
     (mozjs_anon_sym_SLASH2, \<lparr>visible = True, named = False, supertype = False\<rparr>),
     (mozjs_sym_regex_pattern, \<lparr>visible = True, named = True, supertype = False\<rparr>),
     (mozjs_sym_regex_flags, \<lparr>visible = True, named = True, supertype = False\<rparr>),
     (mozjs_sym_number, \<lparr>visible = True, named = True, supertype = False\<rparr>),
     (mozjs_sym_private_property_identifier, \<lparr>visible = True, named = True, supertype =
       False\<rparr>),
     (mozjs_anon_sym_target, \<lparr>visible = True, named = False, supertype = False\<rparr>),
     (mozjs_anon_sym_meta, \<lparr>visible = True, named = False, supertype = False\<rparr>),
     (mozjs_sym_this, \<lparr>visible = True, named = True, supertype = False\<rparr>),
     (mozjs_sym_super, \<lparr>visible = True, named = True, supertype = False\<rparr>)]"

definition mozjs_symbol_metadata_4 :: "(nat \<times> TSSymbolMetadata) list" where
  "mozjs_symbol_metadata_4 =
    [(mozjs_sym_true, \<lparr>visible = True, named = True, supertype = False\<rparr>),
     (mozjs_sym_false, \<lparr>visible = True, named = True, supertype = False\<rparr>),
     (mozjs_sym_null, \<lparr>visible = True, named = True, supertype = False\<rparr>),
     (mozjs_sym_undefined, \<lparr>visible = True, named = True, supertype = False\<rparr>),
     (mozjs_anon_sym_AT, \<lparr>visible = True, named = False, supertype = False\<rparr>),
     (mozjs_anon_sym_static, \<lparr>visible = True, named = False, supertype = False\<rparr>),
     (mozjs_aux_sym_method_definition_token1, \<lparr>visible = True, named = False, supertype =
       False\<rparr>),
     (mozjs_anon_sym_get, \<lparr>visible = True, named = False, supertype = False\<rparr>),
     (mozjs_anon_sym_set, \<lparr>visible = True, named = False, supertype = False\<rparr>),
     (mozjs_sym_preproc, \<lparr>visible = True, named = True, supertype = False\<rparr>),
     (mozjs_sym__automatic_semicolon, \<lparr>visible = False, named = True, supertype =
       False\<rparr>),
     (mozjs_sym__template_chars, \<lparr>visible = True, named = True, supertype = False\<rparr>),
     (mozjs_sym__ternary_qmark, \<lparr>visible = True, named = False, supertype = False\<rparr>),
     (mozjs_sym_html_comment, \<lparr>visible = True, named = True, supertype = False\<rparr>),
     (mozjs_sym_jsx_text, \<lparr>visible = True, named = True, supertype = False\<rparr>),
     (mozjs_sym_program, \<lparr>visible = True, named = True, supertype = False\<rparr>),
     (mozjs_sym_export_statement, \<lparr>visible = True, named = True, supertype =
       False\<rparr>),
     (mozjs_sym_namespace_export, \<lparr>visible = True, named = True, supertype =
       False\<rparr>),
     (mozjs_sym_export_clause, \<lparr>visible = True, named = True, supertype = False\<rparr>),
     (mozjs_sym_export_specifier, \<lparr>visible = True, named = True, supertype =
       False\<rparr>),
     (mozjs_sym__module_export_name, \<lparr>visible = False, named = True, supertype =
       False\<rparr>),
     (mozjs_sym_declaration, \<lparr>visible = False, named = True, supertype = True\<rparr>),
     (mozjs_sym_import, \<lparr>visible = True, named = True, supertype = False\<rparr>),
     (mozjs_sym_import_statement, \<lparr>visible = True, named = True, supertype =
       False\<rparr>),
     (mozjs_sym_import_clause, \<lparr>visible = True, named = True, supertype = False\<rparr>),
     (mozjs_sym__from_clause, \<lparr>visible = False, named = True, supertype = False\<rparr>),
     (mozjs_sym_namespace_import, \<lparr>visible = True, named = True, supertype =
       False\<rparr>),
     (mozjs_sym_named_imports, \<lparr>visible = True, named = True, supertype = False\<rparr>),
     (mozjs_sym_import_specifier, \<lparr>visible = True, named = True, supertype =
       False\<rparr>),
     (mozjs_sym_import_attribute, \<lparr>visible = True, named = True, supertype =
       False\<rparr>)]"

definition mozjs_symbol_metadata_5 :: "(nat \<times> TSSymbolMetadata) list" where
  "mozjs_symbol_metadata_5 =
    [(mozjs_sym_statement, \<lparr>visible = False, named = True, supertype = True\<rparr>),
     (mozjs_sym_expression_statement, \<lparr>visible = True, named = True, supertype =
       False\<rparr>),
     (mozjs_sym_variable_declaration, \<lparr>visible = True, named = True, supertype =
       False\<rparr>),
     (mozjs_sym_lexical_declaration, \<lparr>visible = True, named = True, supertype =
       False\<rparr>),
     (mozjs_sym_using_declaration, \<lparr>visible = True, named = True, supertype =
       False\<rparr>),
     (mozjs_sym_variable_declarator, \<lparr>visible = True, named = True, supertype =
       False\<rparr>),
     (mozjs_sym_statement_block, \<lparr>visible = True, named = True, supertype = False\<rparr>),
     (mozjs_sym_else_clause, \<lparr>visible = True, named = True, supertype = False\<rparr>),
     (mozjs_sym_if_statement, \<lparr>visible = True, named = True, supertype = False\<rparr>),
     (mozjs_sym_switch_statement, \<lparr>visible = True, named = True, supertype =
       False\<rparr>),
     (mozjs_sym_for_statement, \<lparr>visible = True, named = True, supertype = False\<rparr>),
     (mozjs_sym_for_in_statement, \<lparr>visible = True, named = True, supertype =
       False\<rparr>),
     (mozjs_sym__for_header, \<lparr>visible = False, named = True, supertype = False\<rparr>),
     (mozjs_sym_while_statement, \<lparr>visible = True, named = True, supertype = False\<rparr>),
     (mozjs_sym_do_statement, \<lparr>visible = True, named = True, supertype = False\<rparr>),
     (mozjs_sym_try_statement, \<lparr>visible = True, named = True, supertype = False\<rparr>),
     (mozjs_sym_with_statement, \<lparr>visible = True, named = True, supertype = False\<rparr>),
     (mozjs_sym_break_statement, \<lparr>visible = True, named = True, supertype = False\<rparr>),
     (mozjs_sym_continue_statement, \<lparr>visible = True, named = True, supertype =
       False\<rparr>),
     (mozjs_sym_debugger_statement, \<lparr>visible = True, named = True, supertype =
       False\<rparr>),
     (mozjs_sym_return_statement, \<lparr>visible = True, named = True, supertype =
       False\<rparr>),
     (mozjs_sym_throw_statement, \<lparr>visible = True, named = True, supertype = False\<rparr>),
     (mozjs_sym_empty_statement, \<lparr>visible = True, named = True, supertype = False\<rparr>),
     (mozjs_sym_labeled_statement, \<lparr>visible = True, named = True, supertype =
       False\<rparr>),
     (mozjs_sym_switch_body, \<lparr>visible = True, named = True, supertype = False\<rparr>),
     (mozjs_sym_switch_case, \<lparr>visible = True, named = True, supertype = False\<rparr>),
     (mozjs_sym_switch_default, \<lparr>visible = True, named = True, supertype = False\<rparr>),
     (mozjs_sym_catch_clause, \<lparr>visible = True, named = True, supertype = False\<rparr>),
     (mozjs_sym_finally_clause, \<lparr>visible = True, named = True, supertype = False\<rparr>),
     (mozjs_sym_parenthesized_expression, \<lparr>visible = True, named = True, supertype =
       False\<rparr>)]"

definition mozjs_symbol_metadata_6 :: "(nat \<times> TSSymbolMetadata) list" where
  "mozjs_symbol_metadata_6 =
    [(mozjs_sym_expression, \<lparr>visible = False, named = True, supertype = True\<rparr>),
     (mozjs_sym_primary_expression, \<lparr>visible = False, named = True, supertype =
       True\<rparr>),
     (mozjs_sym_yield_expression, \<lparr>visible = True, named = True, supertype =
       False\<rparr>),
     (mozjs_sym_object, \<lparr>visible = True, named = True, supertype = False\<rparr>),
     (mozjs_sym_object_pattern, \<lparr>visible = True, named = True, supertype = False\<rparr>),
     (mozjs_sym_assignment_pattern, \<lparr>visible = True, named = True, supertype =
       False\<rparr>),
     (mozjs_sym_object_assignment_pattern, \<lparr>visible = True, named = True, supertype =
       False\<rparr>),
     (mozjs_sym_array, \<lparr>visible = True, named = True, supertype = False\<rparr>),
     (mozjs_sym_array_pattern, \<lparr>visible = True, named = True, supertype = False\<rparr>),
     (mozjs_sym_jsx_element, \<lparr>visible = True, named = True, supertype = False\<rparr>),
     (mozjs_sym_jsx_expression, \<lparr>visible = True, named = True, supertype = False\<rparr>),
     (mozjs_sym_jsx_opening_element, \<lparr>visible = True, named = True, supertype =
       False\<rparr>),
     (mozjs_sym_nested_identifier, \<lparr>visible = True, named = True, supertype =
       False\<rparr>),
     (mozjs_sym_jsx_namespace_name, \<lparr>visible = True, named = True, supertype =
       False\<rparr>),
     (mozjs_sym_jsx_closing_element, \<lparr>visible = True, named = True, supertype =
       False\<rparr>),
     (mozjs_sym_jsx_self_closing_element, \<lparr>visible = True, named = True, supertype =
       False\<rparr>),
     (mozjs_sym_jsx_attribute, \<lparr>visible = True, named = True, supertype = False\<rparr>),
     (mozjs_sym__jsx_string, \<lparr>visible = True, named = True, supertype = False\<rparr>),
     (mozjs_sym_class, \<lparr>visible = True, named = True, supertype = False\<rparr>),
     (mozjs_sym_class_declaration, \<lparr>visible = True, named = True, supertype =
       False\<rparr>),
     (mozjs_sym_class_heritage, \<lparr>visible = True, named = True, supertype = False\<rparr>),
     (mozjs_sym_function_expression, \<lparr>visible = True, named = True, supertype =
       False\<rparr>),
     (mozjs_sym_function_declaration, \<lparr>visible = True, named = True, supertype =
       False\<rparr>),
     (mozjs_sym_generator_function, \<lparr>visible = True, named = True, supertype =
       False\<rparr>),
     (mozjs_sym_generator_function_declaration, \<lparr>visible = True, named = True, supertype =
       False\<rparr>),
     (mozjs_sym_arrow_function, \<lparr>visible = True, named = True, supertype = False\<rparr>),
     (mozjs_sym_call_expression, \<lparr>visible = True, named = True, supertype = False\<rparr>),
     (mozjs_sym_new_expression, \<lparr>visible = True, named = True, supertype = False\<rparr>),
     (mozjs_sym_await_expression, \<lparr>visible = True, named = True, supertype =
       False\<rparr>),
     (mozjs_sym_member_expression, \<lparr>visible = True, named = True, supertype =
       False\<rparr>)]"

definition mozjs_symbol_metadata_7 :: "(nat \<times> TSSymbolMetadata) list" where
  "mozjs_symbol_metadata_7 =
    [(mozjs_sym_subscript_expression, \<lparr>visible = True, named = True, supertype =
      False\<rparr>),
     (mozjs_sym_assignment_expression, \<lparr>visible = True, named = True, supertype =
       False\<rparr>),
     (mozjs_sym__augmented_assignment_lhs, \<lparr>visible = False, named = True, supertype =
       False\<rparr>),
     (mozjs_sym_augmented_assignment_expression, \<lparr>visible = True, named = True, supertype
       = False\<rparr>),
     (mozjs_sym__initializer, \<lparr>visible = False, named = True, supertype = False\<rparr>),
     (mozjs_sym__destructuring_pattern, \<lparr>visible = False, named = True, supertype =
       False\<rparr>),
     (mozjs_sym_spread_element, \<lparr>visible = True, named = True, supertype = False\<rparr>),
     (mozjs_sym_ternary_expression, \<lparr>visible = True, named = True, supertype =
       False\<rparr>),
     (mozjs_sym_binary_expression, \<lparr>visible = True, named = True, supertype =
       False\<rparr>),
     (mozjs_sym_unary_expression, \<lparr>visible = True, named = True, supertype =
       False\<rparr>),
     (mozjs_sym_update_expression, \<lparr>visible = True, named = True, supertype =
       False\<rparr>),
     (mozjs_sym_sequence_expression, \<lparr>visible = True, named = True, supertype =
       False\<rparr>),
     (mozjs_sym_string, \<lparr>visible = True, named = True, supertype = False\<rparr>),
     (mozjs_sym_template_string, \<lparr>visible = True, named = True, supertype = False\<rparr>),
     (mozjs_sym_template_substitution, \<lparr>visible = True, named = True, supertype =
       False\<rparr>),
     (mozjs_sym_regex, \<lparr>visible = True, named = True, supertype = False\<rparr>),
     (mozjs_sym_meta_property, \<lparr>visible = True, named = True, supertype = False\<rparr>),
     (mozjs_sym_arguments, \<lparr>visible = True, named = True, supertype = False\<rparr>),
     (mozjs_sym_decorator, \<lparr>visible = True, named = True, supertype = False\<rparr>),
     (mozjs_sym_decorator_member_expression, \<lparr>visible = True, named = True, supertype =
       False\<rparr>),
     (mozjs_sym_decorator_call_expression, \<lparr>visible = True, named = True, supertype =
       False\<rparr>),
     (mozjs_sym_class_body, \<lparr>visible = True, named = True, supertype = False\<rparr>),
     (mozjs_sym_field_definition, \<lparr>visible = True, named = True, supertype =
       False\<rparr>),
     (mozjs_sym_formal_parameters, \<lparr>visible = True, named = True, supertype =
       False\<rparr>),
     (mozjs_sym_class_static_block, \<lparr>visible = True, named = True, supertype =
       False\<rparr>),
     (mozjs_sym_pattern, \<lparr>visible = False, named = True, supertype = True\<rparr>),
     (mozjs_sym_rest_pattern, \<lparr>visible = True, named = True, supertype = False\<rparr>),
     (mozjs_sym_method_definition, \<lparr>visible = True, named = True, supertype =
       False\<rparr>),
     (mozjs_sym_pair, \<lparr>visible = True, named = True, supertype = False\<rparr>),
     (mozjs_sym_pair_pattern, \<lparr>visible = True, named = True, supertype = False\<rparr>)]"

definition mozjs_symbol_metadata_8 :: "(nat \<times> TSSymbolMetadata) list" where
  "mozjs_symbol_metadata_8 =
    [(mozjs_sym__property_name, \<lparr>visible = False, named = True, supertype = False\<rparr>),
     (mozjs_sym_computed_property_name, \<lparr>visible = True, named = True, supertype =
       False\<rparr>),
     (mozjs_aux_sym_program_repeat1, \<lparr>visible = False, named = False, supertype =
       False\<rparr>),
     (mozjs_aux_sym_export_statement_repeat1, \<lparr>visible = False, named = False, supertype =
       False\<rparr>),
     (mozjs_aux_sym_export_clause_repeat1, \<lparr>visible = False, named = False, supertype =
       False\<rparr>),
     (mozjs_aux_sym_named_imports_repeat1, \<lparr>visible = False, named = False, supertype =
       False\<rparr>),
     (mozjs_aux_sym_variable_declaration_repeat1, \<lparr>visible = False, named = False,
       supertype = False\<rparr>),
     (mozjs_aux_sym_switch_body_repeat1, \<lparr>visible = False, named = False, supertype =
       False\<rparr>),
     (mozjs_aux_sym_object_repeat1, \<lparr>visible = False, named = False, supertype =
       False\<rparr>),
     (mozjs_aux_sym_object_pattern_repeat1, \<lparr>visible = False, named = False, supertype =
       False\<rparr>),
     (mozjs_aux_sym_array_repeat1, \<lparr>visible = False, named = False, supertype =
       False\<rparr>),
     (mozjs_aux_sym_array_pattern_repeat1, \<lparr>visible = False, named = False, supertype =
       False\<rparr>),
     (mozjs_aux_sym_jsx_element_repeat1, \<lparr>visible = False, named = False, supertype =
       False\<rparr>),
     (mozjs_aux_sym_jsx_opening_element_repeat1, \<lparr>visible = False, named = False,
       supertype = False\<rparr>),
     (mozjs_aux_sym__jsx_string_repeat1, \<lparr>visible = False, named = False, supertype =
       False\<rparr>),
     (mozjs_aux_sym__jsx_string_repeat2, \<lparr>visible = False, named = False, supertype =
       False\<rparr>),
     (mozjs_aux_sym_sequence_expression_repeat1, \<lparr>visible = False, named = False,
       supertype = False\<rparr>),
     (mozjs_aux_sym_string_repeat1, \<lparr>visible = False, named = False, supertype =
       False\<rparr>),
     (mozjs_aux_sym_string_repeat2, \<lparr>visible = False, named = False, supertype =
       False\<rparr>),
     (mozjs_aux_sym_template_string_repeat1, \<lparr>visible = False, named = False, supertype =
       False\<rparr>),
     (mozjs_aux_sym_class_body_repeat1, \<lparr>visible = False, named = False, supertype =
       False\<rparr>),
     (mozjs_aux_sym_formal_parameters_repeat1, \<lparr>visible = False, named = False, supertype
       = False\<rparr>),
     (mozjs_alias_sym_property_identifier, \<lparr>visible = True, named = True, supertype =
       False\<rparr>),
     (mozjs_alias_sym_shorthand_property_identifier, \<lparr>visible = True, named = True,
       supertype = False\<rparr>),
     (mozjs_alias_sym_shorthand_property_identifier_pattern, \<lparr>visible = True, named =
       True, supertype = False\<rparr>),
     (mozjs_alias_sym_statement_identifier, \<lparr>visible = True, named = True, supertype =
       False\<rparr>)]"

definition mozjs_ts_symbol_metadata :: "(nat \<times> TSSymbolMetadata) list" where
  "mozjs_ts_symbol_metadata = mozjs_symbol_metadata_0 @ mozjs_symbol_metadata_1 @
    mozjs_symbol_metadata_2 @ mozjs_symbol_metadata_3 @ mozjs_symbol_metadata_4 @
    mozjs_symbol_metadata_5 @ mozjs_symbol_metadata_6 @ mozjs_symbol_metadata_7 @
    mozjs_symbol_metadata_8"

abbreviation (input) mozjs_field_alias :: nat where "mozjs_field_alias \<equiv> 1"
abbreviation (input) mozjs_field_alternative :: nat where "mozjs_field_alternative \<equiv> 2"
abbreviation (input) mozjs_field_argument :: nat where "mozjs_field_argument \<equiv> 3"
abbreviation (input) mozjs_field_arguments :: nat where "mozjs_field_arguments \<equiv> 4"
abbreviation (input) mozjs_field_attribute :: nat where "mozjs_field_attribute \<equiv> 5"
abbreviation (input) mozjs_field_body :: nat where "mozjs_field_body \<equiv> 6"
abbreviation (input) mozjs_field_close_tag :: nat where "mozjs_field_close_tag \<equiv> 7"
abbreviation (input) mozjs_field_condition :: nat where "mozjs_field_condition \<equiv> 8"
abbreviation (input) mozjs_field_consequence :: nat where "mozjs_field_consequence \<equiv> 9"
abbreviation (input) mozjs_field_constructor :: nat where "mozjs_field_constructor \<equiv> 10"
abbreviation (input) mozjs_field_declaration :: nat where "mozjs_field_declaration \<equiv> 11"
abbreviation (input) mozjs_field_decorator :: nat where "mozjs_field_decorator \<equiv> 12"
abbreviation (input) mozjs_field_finalizer :: nat where "mozjs_field_finalizer \<equiv> 13"
abbreviation (input) mozjs_field_flags :: nat where "mozjs_field_flags \<equiv> 14"
abbreviation (input) mozjs_field_function :: nat where "mozjs_field_function \<equiv> 15"
abbreviation (input) mozjs_field_handler :: nat where "mozjs_field_handler \<equiv> 16"
abbreviation (input) mozjs_field_increment :: nat where "mozjs_field_increment \<equiv> 17"
abbreviation (input) mozjs_field_index :: nat where "mozjs_field_index \<equiv> 18"
abbreviation (input) mozjs_field_initializer :: nat where "mozjs_field_initializer \<equiv> 19"
abbreviation (input) mozjs_field_key :: nat where "mozjs_field_key \<equiv> 20"
abbreviation (input) mozjs_field_kind :: nat where "mozjs_field_kind \<equiv> 21"
abbreviation (input) mozjs_field_label :: nat where "mozjs_field_label \<equiv> 22"
abbreviation (input) mozjs_field_left :: nat where "mozjs_field_left \<equiv> 23"
abbreviation (input) mozjs_field_member :: nat where "mozjs_field_member \<equiv> 24"
abbreviation (input) mozjs_field_name :: nat where "mozjs_field_name \<equiv> 25"
abbreviation (input) mozjs_field_object :: nat where "mozjs_field_object \<equiv> 26"
abbreviation (input) mozjs_field_open_tag :: nat where "mozjs_field_open_tag \<equiv> 27"
abbreviation (input) mozjs_field_operator :: nat where "mozjs_field_operator \<equiv> 28"
abbreviation (input) mozjs_field_optional_chain :: nat where "mozjs_field_optional_chain \<equiv> 29"
abbreviation (input) mozjs_field_parameter :: nat where "mozjs_field_parameter \<equiv> 30"
abbreviation (input) mozjs_field_parameters :: nat where "mozjs_field_parameters \<equiv> 31"
abbreviation (input) mozjs_field_pattern :: nat where "mozjs_field_pattern \<equiv> 32"
abbreviation (input) mozjs_field_property :: nat where "mozjs_field_property \<equiv> 33"
abbreviation (input) mozjs_field_right :: nat where "mozjs_field_right \<equiv> 34"
abbreviation (input) mozjs_field_source :: nat where "mozjs_field_source \<equiv> 35"
abbreviation (input) mozjs_field_value :: nat where "mozjs_field_value \<equiv> 36"

definition mozjs_ts_field_names :: "(nat \<times> string option) list" where
  "mozjs_ts_field_names =
    [(0, None),
     (mozjs_field_alias, Some ''alias''),
     (mozjs_field_alternative, Some ''alternative''),
     (mozjs_field_argument, Some ''argument''),
     (mozjs_field_arguments, Some ''arguments''),
     (mozjs_field_attribute, Some ''attribute''),
     (mozjs_field_body, Some ''body''),
     (mozjs_field_close_tag, Some ''close_tag''),
     (mozjs_field_condition, Some ''condition''),
     (mozjs_field_consequence, Some ''consequence''),
     (mozjs_field_constructor, Some ''constructor''),
     (mozjs_field_declaration, Some ''declaration''),
     (mozjs_field_decorator, Some ''decorator''),
     (mozjs_field_finalizer, Some ''finalizer''),
     (mozjs_field_flags, Some ''flags''),
     (mozjs_field_function, Some ''function''),
     (mozjs_field_handler, Some ''handler''),
     (mozjs_field_increment, Some ''increment''),
     (mozjs_field_index, Some ''index''),
     (mozjs_field_initializer, Some ''initializer''),
     (mozjs_field_key, Some ''key''),
     (mozjs_field_kind, Some ''kind''),
     (mozjs_field_label, Some ''label''),
     (mozjs_field_left, Some ''left''),
     (mozjs_field_member, Some ''member''),
     (mozjs_field_name, Some ''name''),
     (mozjs_field_object, Some ''object''),
     (mozjs_field_open_tag, Some ''open_tag''),
     (mozjs_field_operator, Some ''operator''),
     (mozjs_field_optional_chain, Some ''optional_chain''),
     (mozjs_field_parameter, Some ''parameter''),
     (mozjs_field_parameters, Some ''parameters''),
     (mozjs_field_pattern, Some ''pattern''),
     (mozjs_field_property, Some ''property''),
     (mozjs_field_right, Some ''right''),
     (mozjs_field_source, Some ''source''),
     (mozjs_field_value, Some ''value'')]"

definition mozjs_ts_field_map_slices :: "(nat \<times> TSMapSlice) list" where
  "mozjs_ts_field_map_slices =
    [(2, \<lparr>slice_index = 0, slice_length = 1\<rparr>),
     (3, \<lparr>slice_index = 1, slice_length = 1\<rparr>),
     (5, \<lparr>slice_index = 2, slice_length = 1\<rparr>),
     (6, \<lparr>slice_index = 2, slice_length = 1\<rparr>),
     (7, \<lparr>slice_index = 3, slice_length = 1\<rparr>),
     (8, \<lparr>slice_index = 4, slice_length = 1\<rparr>),
     (9, \<lparr>slice_index = 5, slice_length = 2\<rparr>),
     (10, \<lparr>slice_index = 7, slice_length = 2\<rparr>),
     (11, \<lparr>slice_index = 9, slice_length = 2\<rparr>),
     (12, \<lparr>slice_index = 11, slice_length = 2\<rparr>),
     (13, \<lparr>slice_index = 13, slice_length = 2\<rparr>),
     (14, \<lparr>slice_index = 15, slice_length = 1\<rparr>),
     (15, \<lparr>slice_index = 16, slice_length = 2\<rparr>),
     (16, \<lparr>slice_index = 18, slice_length = 2\<rparr>),
     (17, \<lparr>slice_index = 20, slice_length = 2\<rparr>),
     (21, \<lparr>slice_index = 22, slice_length = 1\<rparr>),
     (22, \<lparr>slice_index = 23, slice_length = 2\<rparr>),
     (23, \<lparr>slice_index = 25, slice_length = 2\<rparr>),
     (24, \<lparr>slice_index = 25, slice_length = 2\<rparr>),
     (25, \<lparr>slice_index = 27, slice_length = 1\<rparr>),
     (26, \<lparr>slice_index = 28, slice_length = 2\<rparr>),
     (27, \<lparr>slice_index = 30, slice_length = 2\<rparr>),
     (28, \<lparr>slice_index = 32, slice_length = 6\<rparr>),
     (29, \<lparr>slice_index = 38, slice_length = 2\<rparr>),
     (30, \<lparr>slice_index = 40, slice_length = 2\<rparr>),
     (31, \<lparr>slice_index = 42, slice_length = 2\<rparr>),
     (32, \<lparr>slice_index = 44, slice_length = 1\<rparr>),
     (33, \<lparr>slice_index = 45, slice_length = 1\<rparr>),
     (34, \<lparr>slice_index = 46, slice_length = 1\<rparr>),
     (35, \<lparr>slice_index = 47, slice_length = 1\<rparr>),
     (36, \<lparr>slice_index = 48, slice_length = 1\<rparr>),
     (37, \<lparr>slice_index = 49, slice_length = 2\<rparr>),
     (38, \<lparr>slice_index = 51, slice_length = 1\<rparr>),
     (39, \<lparr>slice_index = 52, slice_length = 2\<rparr>),
     (40, \<lparr>slice_index = 54, slice_length = 2\<rparr>),
     (41, \<lparr>slice_index = 56, slice_length = 1\<rparr>),
     (42, \<lparr>slice_index = 18, slice_length = 2\<rparr>),
     (43, \<lparr>slice_index = 20, slice_length = 2\<rparr>),
     (44, \<lparr>slice_index = 57, slice_length = 3\<rparr>),
     (45, \<lparr>slice_index = 60, slice_length = 2\<rparr>),
     (46, \<lparr>slice_index = 60, slice_length = 2\<rparr>),
     (47, \<lparr>slice_index = 62, slice_length = 3\<rparr>),
     (48, \<lparr>slice_index = 62, slice_length = 3\<rparr>),
     (49, \<lparr>slice_index = 65, slice_length = 3\<rparr>),
     (50, \<lparr>slice_index = 68, slice_length = 2\<rparr>),
     (51, \<lparr>slice_index = 70, slice_length = 2\<rparr>),
     (52, \<lparr>slice_index = 72, slice_length = 2\<rparr>),
     (53, \<lparr>slice_index = 74, slice_length = 2\<rparr>),
     (54, \<lparr>slice_index = 76, slice_length = 1\<rparr>),
     (55, \<lparr>slice_index = 77, slice_length = 1\<rparr>),
     (56, \<lparr>slice_index = 18, slice_length = 2\<rparr>),
     (57, \<lparr>slice_index = 78, slice_length = 2\<rparr>),
     (58, \<lparr>slice_index = 80, slice_length = 3\<rparr>),
     (59, \<lparr>slice_index = 83, slice_length = 1\<rparr>),
     (60, \<lparr>slice_index = 84, slice_length = 2\<rparr>),
     (61, \<lparr>slice_index = 86, slice_length = 3\<rparr>),
     (62, \<lparr>slice_index = 89, slice_length = 6\<rparr>),
     (63, \<lparr>slice_index = 95, slice_length = 2\<rparr>),
     (64, \<lparr>slice_index = 97, slice_length = 3\<rparr>),
     (65, \<lparr>slice_index = 100, slice_length = 2\<rparr>),
     (66, \<lparr>slice_index = 102, slice_length = 2\<rparr>),
     (67, \<lparr>slice_index = 104, slice_length = 1\<rparr>),
     (68, \<lparr>slice_index = 105, slice_length = 2\<rparr>),
     (69, \<lparr>slice_index = 107, slice_length = 2\<rparr>),
     (70, \<lparr>slice_index = 109, slice_length = 1\<rparr>),
     (71, \<lparr>slice_index = 110, slice_length = 2\<rparr>),
     (72, \<lparr>slice_index = 112, slice_length = 2\<rparr>),
     (73, \<lparr>slice_index = 114, slice_length = 2\<rparr>),
     (74, \<lparr>slice_index = 116, slice_length = 2\<rparr>),
     (75, \<lparr>slice_index = 114, slice_length = 2\<rparr>),
     (76, \<lparr>slice_index = 118, slice_length = 2\<rparr>),
     (77, \<lparr>slice_index = 120, slice_length = 3\<rparr>),
     (78, \<lparr>slice_index = 123, slice_length = 2\<rparr>),
     (79, \<lparr>slice_index = 125, slice_length = 2\<rparr>),
     (80, \<lparr>slice_index = 127, slice_length = 2\<rparr>),
     (81, \<lparr>slice_index = 129, slice_length = 3\<rparr>),
     (82, \<lparr>slice_index = 132, slice_length = 2\<rparr>),
     (83, \<lparr>slice_index = 134, slice_length = 2\<rparr>),
     (84, \<lparr>slice_index = 136, slice_length = 4\<rparr>),
     (85, \<lparr>slice_index = 140, slice_length = 2\<rparr>),
     (86, \<lparr>slice_index = 142, slice_length = 2\<rparr>),
     (87, \<lparr>slice_index = 144, slice_length = 3\<rparr>),
     (88, \<lparr>slice_index = 147, slice_length = 2\<rparr>),
     (89, \<lparr>slice_index = 149, slice_length = 3\<rparr>),
     (90, \<lparr>slice_index = 152, slice_length = 3\<rparr>),
     (91, \<lparr>slice_index = 155, slice_length = 3\<rparr>),
     (92, \<lparr>slice_index = 158, slice_length = 2\<rparr>),
     (93, \<lparr>slice_index = 160, slice_length = 3\<rparr>),
     (94, \<lparr>slice_index = 163, slice_length = 4\<rparr>),
     (95, \<lparr>slice_index = 167, slice_length = 3\<rparr>),
     (96, \<lparr>slice_index = 167, slice_length = 3\<rparr>),
     (97, \<lparr>slice_index = 170, slice_length = 3\<rparr>),
     (98, \<lparr>slice_index = 173, slice_length = 3\<rparr>),
     (99, \<lparr>slice_index = 176, slice_length = 3\<rparr>),
     (100, \<lparr>slice_index = 179, slice_length = 4\<rparr>),
     (101, \<lparr>slice_index = 183, slice_length = 2\<rparr>),
     (102, \<lparr>slice_index = 185, slice_length = 4\<rparr>),
     (103, \<lparr>slice_index = 185, slice_length = 4\<rparr>),
     (104, \<lparr>slice_index = 189, slice_length = 4\<rparr>),
     (105, \<lparr>slice_index = 193, slice_length = 4\<rparr>),
     (106, \<lparr>slice_index = 197, slice_length = 3\<rparr>),
     (107, \<lparr>slice_index = 200, slice_length = 2\<rparr>),
     (108, \<lparr>slice_index = 202, slice_length = 4\<rparr>),
     (109, \<lparr>slice_index = 206, slice_length = 5\<rparr>),
     (110, \<lparr>slice_index = 206, slice_length = 5\<rparr>),
     (111, \<lparr>slice_index = 211, slice_length = 4\<rparr>),
     (112, \<lparr>slice_index = 211, slice_length = 4\<rparr>),
     (113, \<lparr>slice_index = 215, slice_length = 5\<rparr>),
     (114, \<lparr>slice_index = 215, slice_length = 5\<rparr>),
     (115, \<lparr>slice_index = 220, slice_length = 5\<rparr>),
     (116, \<lparr>slice_index = 225, slice_length = 4\<rparr>),
     (117, \<lparr>slice_index = 229, slice_length = 4\<rparr>),
     (118, \<lparr>slice_index = 233, slice_length = 5\<rparr>),
     (119, \<lparr>slice_index = 233, slice_length = 5\<rparr>),
     (120, \<lparr>slice_index = 238, slice_length = 5\<rparr>)]"

definition mozjs_field_entries_0 :: "(nat \<times> TSFieldMapEntry list) list" where
  "mozjs_field_entries_0 =
    [(0, [\<lparr>field_id = mozjs_field_decorator, child_index = 0, inherited = False\<rparr>]),
     (1, [\<lparr>field_id = mozjs_field_declaration, child_index = 1, inherited =
       False\<rparr>]),
     (2, [\<lparr>field_id = mozjs_field_name, child_index = 0, inherited = False\<rparr>]),
     (3, [\<lparr>field_id = mozjs_field_body, child_index = 1, inherited = False\<rparr>]),
     (4, [\<lparr>field_id = mozjs_field_constructor, child_index = 1, inherited =
       False\<rparr>]),
     (5, [\<lparr>field_id = mozjs_field_argument, child_index = 1, inherited = False\<rparr>,
       \<lparr>field_id = mozjs_field_operator, child_index = 0, inherited = False\<rparr>]),
     (7, [\<lparr>field_id = mozjs_field_arguments, child_index = 1, inherited = False\<rparr>,
       \<lparr>field_id = mozjs_field_function, child_index = 0, inherited = False\<rparr>]),
     (9, [\<lparr>field_id = mozjs_field_argument, child_index = 0, inherited = False\<rparr>,
       \<lparr>field_id = mozjs_field_operator, child_index = 1, inherited = False\<rparr>]),
     (11, [\<lparr>field_id = mozjs_field_close_tag, child_index = 1, inherited = False\<rparr>,
       \<lparr>field_id = mozjs_field_open_tag, child_index = 0, inherited = False\<rparr>]),
     (13, [\<lparr>field_id = mozjs_field_decorator, child_index = 0, inherited = True\<rparr>,
       \<lparr>field_id = mozjs_field_decorator, child_index = 1, inherited = True\<rparr>]),
     (15, [\<lparr>field_id = mozjs_field_declaration, child_index = 2, inherited =
       False\<rparr>]),
     (16, [\<lparr>field_id = mozjs_field_body, child_index = 2, inherited = False\<rparr>,
       \<lparr>field_id = mozjs_field_label, child_index = 0, inherited = False\<rparr>]),
     (18, [\<lparr>field_id = mozjs_field_left, child_index = 0, inherited = False\<rparr>,
       \<lparr>field_id = mozjs_field_right, child_index = 2, inherited = False\<rparr>]),
     (20, [\<lparr>field_id = mozjs_field_body, child_index = 2, inherited = False\<rparr>,
       \<lparr>field_id = mozjs_field_parameter, child_index = 0, inherited = False\<rparr>]),
     (22, [\<lparr>field_id = mozjs_field_source, child_index = 1, inherited = False\<rparr>]),
     (23, [\<lparr>field_id = mozjs_field_body, child_index = 2, inherited = False\<rparr>,
       \<lparr>field_id = mozjs_field_object, child_index = 1, inherited = False\<rparr>]),
     (25, [\<lparr>field_id = mozjs_field_name, child_index = 0, inherited = False\<rparr>,
       \<lparr>field_id = mozjs_field_value, child_index = 1, inherited = True\<rparr>]),
     (27, [\<lparr>field_id = mozjs_field_kind, child_index = 0, inherited = False\<rparr>]),
     (28, [\<lparr>field_id = mozjs_field_condition, child_index = 1, inherited = False\<rparr>,
       \<lparr>field_id = mozjs_field_consequence, child_index = 2, inherited = False\<rparr>]),
     (30, [\<lparr>field_id = mozjs_field_body, child_index = 2, inherited = False\<rparr>,
       \<lparr>field_id = mozjs_field_value, child_index = 1, inherited = False\<rparr>]),
     (32, [\<lparr>field_id = mozjs_field_body, child_index = 2, inherited = False\<rparr>,
       \<lparr>field_id = mozjs_field_kind, child_index = 1, inherited = True\<rparr>,
       \<lparr>field_id = mozjs_field_left, child_index = 1, inherited = True\<rparr>,
       \<lparr>field_id = mozjs_field_operator, child_index = 1, inherited = True\<rparr>,
       \<lparr>field_id = mozjs_field_right, child_index = 1, inherited = True\<rparr>,
       \<lparr>field_id = mozjs_field_value, child_index = 1, inherited = True\<rparr>]),
     (38, [\<lparr>field_id = mozjs_field_body, child_index = 2, inherited = False\<rparr>,
       \<lparr>field_id = mozjs_field_condition, child_index = 1, inherited = False\<rparr>]),
     (40, [\<lparr>field_id = mozjs_field_body, child_index = 1, inherited = False\<rparr>,
       \<lparr>field_id = mozjs_field_handler, child_index = 2, inherited = False\<rparr>]),
     (42, [\<lparr>field_id = mozjs_field_body, child_index = 1, inherited = False\<rparr>,
       \<lparr>field_id = mozjs_field_finalizer, child_index = 2, inherited = False\<rparr>]),
     (44, [\<lparr>field_id = mozjs_field_label, child_index = 1, inherited = False\<rparr>]),
     (45, [\<lparr>field_id = mozjs_field_name, child_index = 1, inherited = False\<rparr>]),
     (46, [\<lparr>field_id = mozjs_field_attribute, child_index = 0, inherited = False\<rparr>]),
     (47, [\<lparr>field_id = mozjs_field_member, child_index = 0, inherited = False\<rparr>]),
     (48, [\<lparr>field_id = mozjs_field_property, child_index = 0, inherited = False\<rparr>]),
     (49, [\<lparr>field_id = mozjs_field_body, child_index = 2, inherited = False\<rparr>,
       \<lparr>field_id = mozjs_field_name, child_index = 1, inherited = False\<rparr>]),
     (51, [\<lparr>field_id = mozjs_field_body, child_index = 2, inherited = False\<rparr>]),
     (52, [\<lparr>field_id = mozjs_field_body, child_index = 2, inherited = False\<rparr>,
       \<lparr>field_id = mozjs_field_parameters, child_index = 1, inherited = False\<rparr>]),
     (54, [\<lparr>field_id = mozjs_field_arguments, child_index = 2, inherited = False\<rparr>,
       \<lparr>field_id = mozjs_field_constructor, child_index = 1, inherited = False\<rparr>]),
     (56, [\<lparr>field_id = mozjs_field_pattern, child_index = 1, inherited = False\<rparr>]),
     (57, [\<lparr>field_id = mozjs_field_left, child_index = 0, inherited = False\<rparr>,
       \<lparr>field_id = mozjs_field_operator, child_index = 1, inherited = False\<rparr>,
       \<lparr>field_id = mozjs_field_right, child_index = 2, inherited = False\<rparr>]),
     (60, [\<lparr>field_id = mozjs_field_object, child_index = 0, inherited = False\<rparr>,
       \<lparr>field_id = mozjs_field_property, child_index = 2, inherited = False\<rparr>]),
     (62, [\<lparr>field_id = mozjs_field_object, child_index = 0, inherited = False\<rparr>,
       \<lparr>field_id = mozjs_field_optional_chain, child_index = 1, inherited = False\<rparr>,
       \<lparr>field_id = mozjs_field_property, child_index = 2, inherited = False\<rparr>]),
     (65, [\<lparr>field_id = mozjs_field_arguments, child_index = 2, inherited = False\<rparr>,
       \<lparr>field_id = mozjs_field_function, child_index = 0, inherited = False\<rparr>,
       \<lparr>field_id = mozjs_field_optional_chain, child_index = 1, inherited =
       False\<rparr>]),
     (68, [\<lparr>field_id = mozjs_field_close_tag, child_index = 2, inherited = False\<rparr>,
       \<lparr>field_id = mozjs_field_open_tag, child_index = 0, inherited = False\<rparr>]),
     (70, [\<lparr>field_id = mozjs_field_body, child_index = 2, inherited = False\<rparr>,
       \<lparr>field_id = mozjs_field_parameters, child_index = 0, inherited = False\<rparr>]),
     (72, [\<lparr>field_id = mozjs_field_declaration, child_index = 2, inherited =
       False\<rparr>, \<lparr>field_id = mozjs_field_decorator, child_index = 0, inherited =
       True\<rparr>]),
     (74, [\<lparr>field_id = mozjs_field_body, child_index = 2, inherited = False\<rparr>,
       \<lparr>field_id = mozjs_field_decorator, child_index = 0, inherited = True\<rparr>]),
     (76, [\<lparr>field_id = mozjs_field_source, child_index = 2, inherited = True\<rparr>]),
     (77, [\<lparr>field_id = mozjs_field_value, child_index = 2, inherited = False\<rparr>]),
     (78, [\<lparr>field_id = mozjs_field_key, child_index = 0, inherited = False\<rparr>,
       \<lparr>field_id = mozjs_field_value, child_index = 2, inherited = False\<rparr>]),
     (80, [\<lparr>field_id = mozjs_field_body, child_index = 2, inherited = False\<rparr>,
       \<lparr>field_id = mozjs_field_name, child_index = 0, inherited = False\<rparr>,
       \<lparr>field_id = mozjs_field_parameters, child_index = 1, inherited = False\<rparr>]),
     (83, [\<lparr>field_id = mozjs_field_value, child_index = 1, inherited = False\<rparr>]),
     (84, [\<lparr>field_id = mozjs_field_kind, child_index = 0, inherited = False\<rparr>,
       \<lparr>field_id = mozjs_field_kind, child_index = 1, inherited = False\<rparr>]),
     (86, [\<lparr>field_id = mozjs_field_alternative, child_index = 3, inherited =
       False\<rparr>, \<lparr>field_id = mozjs_field_condition, child_index = 1, inherited =
       False\<rparr>, \<lparr>field_id = mozjs_field_consequence, child_index = 2, inherited =
       False\<rparr>]),
     (89, [\<lparr>field_id = mozjs_field_body, child_index = 3, inherited = False\<rparr>,
       \<lparr>field_id = mozjs_field_kind, child_index = 2, inherited = True\<rparr>,
       \<lparr>field_id = mozjs_field_left, child_index = 2, inherited = True\<rparr>,
       \<lparr>field_id = mozjs_field_operator, child_index = 2, inherited = True\<rparr>,
       \<lparr>field_id = mozjs_field_right, child_index = 2, inherited = True\<rparr>,
       \<lparr>field_id = mozjs_field_value, child_index = 2, inherited = True\<rparr>])]"

definition mozjs_field_entries_1 :: "(nat \<times> TSFieldMapEntry list) list" where
  "mozjs_field_entries_1 =
    [(95, [\<lparr>field_id = mozjs_field_body, child_index = 1, inherited = False\<rparr>,
      \<lparr>field_id = mozjs_field_condition, child_index = 3, inherited = False\<rparr>]),
     (97, [\<lparr>field_id = mozjs_field_body, child_index = 1, inherited = False\<rparr>,
       \<lparr>field_id = mozjs_field_finalizer, child_index = 3, inherited = False\<rparr>,
       \<lparr>field_id = mozjs_field_handler, child_index = 2, inherited = False\<rparr>]),
     (100, [\<lparr>field_id = mozjs_field_attribute, child_index = 2, inherited = True\<rparr>,
       \<lparr>field_id = mozjs_field_name, child_index = 1, inherited = False\<rparr>]),
     (102, [\<lparr>field_id = mozjs_field_attribute, child_index = 0, inherited = True\<rparr>,
       \<lparr>field_id = mozjs_field_attribute, child_index = 1, inherited = True\<rparr>]),
     (104, [\<lparr>field_id = mozjs_field_property, child_index = 1, inherited = False\<rparr>]),
     (105, [\<lparr>field_id = mozjs_field_property, child_index = 0, inherited = False\<rparr>,
       \<lparr>field_id = mozjs_field_value, child_index = 1, inherited = True\<rparr>]),
     (107, [\<lparr>field_id = mozjs_field_decorator, child_index = 0, inherited = True\<rparr>,
       \<lparr>field_id = mozjs_field_property, child_index = 1, inherited = False\<rparr>]),
     (109, [\<lparr>field_id = mozjs_field_member, child_index = 1, inherited = True\<rparr>]),
     (110, [\<lparr>field_id = mozjs_field_member, child_index = 0, inherited = True\<rparr>,
       \<lparr>field_id = mozjs_field_member, child_index = 1, inherited = True\<rparr>]),
     (112, [\<lparr>field_id = mozjs_field_body, child_index = 3, inherited = False\<rparr>,
       \<lparr>field_id = mozjs_field_name, child_index = 1, inherited = False\<rparr>]),
     (114, [\<lparr>field_id = mozjs_field_body, child_index = 3, inherited = False\<rparr>,
       \<lparr>field_id = mozjs_field_parameter, child_index = 1, inherited = False\<rparr>]),
     (116, [\<lparr>field_id = mozjs_field_body, child_index = 3, inherited = False\<rparr>,
       \<lparr>field_id = mozjs_field_parameters, child_index = 2, inherited = False\<rparr>]),
     (118, [\<lparr>field_id = mozjs_field_body, child_index = 3, inherited = False\<rparr>,
       \<lparr>field_id = mozjs_field_parameters, child_index = 1, inherited = False\<rparr>]),
     (120, [\<lparr>field_id = mozjs_field_body, child_index = 3, inherited = False\<rparr>,
       \<lparr>field_id = mozjs_field_name, child_index = 1, inherited = False\<rparr>,
       \<lparr>field_id = mozjs_field_parameters, child_index = 2, inherited = False\<rparr>]),
     (123, [\<lparr>field_id = mozjs_field_flags, child_index = 3, inherited = False\<rparr>,
       \<lparr>field_id = mozjs_field_pattern, child_index = 1, inherited = False\<rparr>]),
     (125, [\<lparr>field_id = mozjs_field_index, child_index = 2, inherited = False\<rparr>,
       \<lparr>field_id = mozjs_field_object, child_index = 0, inherited = False\<rparr>]),
     (127, [\<lparr>field_id = mozjs_field_declaration, child_index = 3, inherited =
       False\<rparr>, \<lparr>field_id = mozjs_field_decorator, child_index = 0, inherited =
       True\<rparr>]),
     (129, [\<lparr>field_id = mozjs_field_body, child_index = 3, inherited = False\<rparr>,
       \<lparr>field_id = mozjs_field_decorator, child_index = 0, inherited = True\<rparr>,
       \<lparr>field_id = mozjs_field_name, child_index = 2, inherited = False\<rparr>]),
     (132, [\<lparr>field_id = mozjs_field_body, child_index = 3, inherited = False\<rparr>,
       \<lparr>field_id = mozjs_field_decorator, child_index = 0, inherited = True\<rparr>]),
     (134, [\<lparr>field_id = mozjs_field_alias, child_index = 2, inherited = False\<rparr>,
       \<lparr>field_id = mozjs_field_name, child_index = 0, inherited = False\<rparr>]),
     (136, [\<lparr>field_id = mozjs_field_body, child_index = 3, inherited = False\<rparr>,
       \<lparr>field_id = mozjs_field_decorator, child_index = 0, inherited = True\<rparr>,
       \<lparr>field_id = mozjs_field_name, child_index = 1, inherited = False\<rparr>,
       \<lparr>field_id = mozjs_field_parameters, child_index = 2, inherited = False\<rparr>]),
     (140, [\<lparr>field_id = mozjs_field_property, child_index = 1, inherited = False\<rparr>,
       \<lparr>field_id = mozjs_field_value, child_index = 2, inherited = True\<rparr>]),
     (142, [\<lparr>field_id = mozjs_field_decorator, child_index = 0, inherited = True\<rparr>,
       \<lparr>field_id = mozjs_field_property, child_index = 2, inherited = False\<rparr>]),
     (144, [\<lparr>field_id = mozjs_field_decorator, child_index = 0, inherited = True\<rparr>,
       \<lparr>field_id = mozjs_field_property, child_index = 1, inherited = False\<rparr>,
       \<lparr>field_id = mozjs_field_value, child_index = 2, inherited = True\<rparr>]),
     (147, [\<lparr>field_id = mozjs_field_body, child_index = 4, inherited = False\<rparr>,
       \<lparr>field_id = mozjs_field_parameters, child_index = 3, inherited = False\<rparr>]),
     (149, [\<lparr>field_id = mozjs_field_body, child_index = 4, inherited = False\<rparr>,
       \<lparr>field_id = mozjs_field_name, child_index = 2, inherited = False\<rparr>,
       \<lparr>field_id = mozjs_field_parameters, child_index = 3, inherited = False\<rparr>]),
     (152, [\<lparr>field_id = mozjs_field_alternative, child_index = 4, inherited =
       False\<rparr>, \<lparr>field_id = mozjs_field_condition, child_index = 0, inherited =
       False\<rparr>, \<lparr>field_id = mozjs_field_consequence, child_index = 2, inherited =
       False\<rparr>]),
     (155, [\<lparr>field_id = mozjs_field_index, child_index = 3, inherited = False\<rparr>,
       \<lparr>field_id = mozjs_field_object, child_index = 0, inherited = False\<rparr>,
       \<lparr>field_id = mozjs_field_optional_chain, child_index = 1, inherited =
       False\<rparr>]),
     (158, [\<lparr>field_id = mozjs_field_decorator, child_index = 0, inherited = True\<rparr>,
       \<lparr>field_id = mozjs_field_value, child_index = 3, inherited = False\<rparr>]),
     (160, [\<lparr>field_id = mozjs_field_body, child_index = 4, inherited = False\<rparr>,
       \<lparr>field_id = mozjs_field_decorator, child_index = 0, inherited = True\<rparr>,
       \<lparr>field_id = mozjs_field_name, child_index = 2, inherited = False\<rparr>]),
     (163, [\<lparr>field_id = mozjs_field_body, child_index = 4, inherited = False\<rparr>,
       \<lparr>field_id = mozjs_field_decorator, child_index = 0, inherited = True\<rparr>,
       \<lparr>field_id = mozjs_field_name, child_index = 2, inherited = False\<rparr>,
       \<lparr>field_id = mozjs_field_parameters, child_index = 3, inherited = False\<rparr>]),
     (167, [\<lparr>field_id = mozjs_field_left, child_index = 1, inherited = False\<rparr>,
       \<lparr>field_id = mozjs_field_operator, child_index = 2, inherited = False\<rparr>,
       \<lparr>field_id = mozjs_field_right, child_index = 3, inherited = False\<rparr>]),
     (170, [\<lparr>field_id = mozjs_field_body, child_index = 5, inherited = False\<rparr>,
       \<lparr>field_id = mozjs_field_condition, child_index = 3, inherited = False\<rparr>,
       \<lparr>field_id = mozjs_field_initializer, child_index = 2, inherited = False\<rparr>]),
     (173, [\<lparr>field_id = mozjs_field_decorator, child_index = 0, inherited = True\<rparr>,
       \<lparr>field_id = mozjs_field_property, child_index = 2, inherited = False\<rparr>,
       \<lparr>field_id = mozjs_field_value, child_index = 3, inherited = True\<rparr>]),
     (176, [\<lparr>field_id = mozjs_field_body, child_index = 5, inherited = False\<rparr>,
       \<lparr>field_id = mozjs_field_name, child_index = 3, inherited = False\<rparr>,
       \<lparr>field_id = mozjs_field_parameters, child_index = 4, inherited = False\<rparr>]),
     (179, [\<lparr>field_id = mozjs_field_body, child_index = 5, inherited = False\<rparr>,
       \<lparr>field_id = mozjs_field_decorator, child_index = 0, inherited = True\<rparr>,
       \<lparr>field_id = mozjs_field_name, child_index = 3, inherited = False\<rparr>,
       \<lparr>field_id = mozjs_field_parameters, child_index = 4, inherited = False\<rparr>]),
     (183, [\<lparr>field_id = mozjs_field_body, child_index = 3, inherited = False\<rparr>,
       \<lparr>field_id = mozjs_field_value, child_index = 1, inherited = False\<rparr>]),
     (185, [\<lparr>field_id = mozjs_field_kind, child_index = 1, inherited = False\<rparr>,
       \<lparr>field_id = mozjs_field_left, child_index = 2, inherited = False\<rparr>,
       \<lparr>field_id = mozjs_field_operator, child_index = 3, inherited = False\<rparr>,
       \<lparr>field_id = mozjs_field_right, child_index = 4, inherited = False\<rparr>]),
     (189, [\<lparr>field_id = mozjs_field_body, child_index = 6, inherited = False\<rparr>,
       \<lparr>field_id = mozjs_field_condition, child_index = 3, inherited = False\<rparr>,
       \<lparr>field_id = mozjs_field_increment, child_index = 4, inherited = False\<rparr>,
       \<lparr>field_id = mozjs_field_initializer, child_index = 2, inherited = False\<rparr>]),
     (193, [\<lparr>field_id = mozjs_field_body, child_index = 6, inherited = False\<rparr>,
       \<lparr>field_id = mozjs_field_condition, child_index = 3, inherited = False\<rparr>,
       \<lparr>field_id = mozjs_field_condition, child_index = 4, inherited = False\<rparr>,
       \<lparr>field_id = mozjs_field_initializer, child_index = 2, inherited = False\<rparr>]),
     (197, [\<lparr>field_id = mozjs_field_body, child_index = 6, inherited = False\<rparr>,
       \<lparr>field_id = mozjs_field_condition, child_index = 4, inherited = False\<rparr>,
       \<lparr>field_id = mozjs_field_initializer, child_index = 2, inherited = False\<rparr>]),
     (200, [\<lparr>field_id = mozjs_field_body, child_index = 4, inherited = False\<rparr>,
       \<lparr>field_id = mozjs_field_parameter, child_index = 2, inherited = False\<rparr>]),
     (202, [\<lparr>field_id = mozjs_field_body, child_index = 6, inherited = False\<rparr>,
       \<lparr>field_id = mozjs_field_decorator, child_index = 0, inherited = True\<rparr>,
       \<lparr>field_id = mozjs_field_name, child_index = 4, inherited = False\<rparr>,
       \<lparr>field_id = mozjs_field_parameters, child_index = 5, inherited = False\<rparr>]),
     (206, [\<lparr>field_id = mozjs_field_kind, child_index = 1, inherited = False\<rparr>,
       \<lparr>field_id = mozjs_field_left, child_index = 2, inherited = False\<rparr>,
       \<lparr>field_id = mozjs_field_operator, child_index = 4, inherited = False\<rparr>,
       \<lparr>field_id = mozjs_field_right, child_index = 5, inherited = False\<rparr>,
       \<lparr>field_id = mozjs_field_value, child_index = 3, inherited = True\<rparr>]),
     (211, [\<lparr>field_id = mozjs_field_kind, child_index = 1, inherited = False\<rparr>,
       \<lparr>field_id = mozjs_field_left, child_index = 2, inherited = False\<rparr>,
       \<lparr>field_id = mozjs_field_operator, child_index = 4, inherited = False\<rparr>,
       \<lparr>field_id = mozjs_field_right, child_index = 5, inherited = False\<rparr>]),
     (215, [\<lparr>field_id = mozjs_field_kind, child_index = 1, inherited = False\<rparr>,
       \<lparr>field_id = mozjs_field_kind, child_index = 2, inherited = False\<rparr>,
       \<lparr>field_id = mozjs_field_left, child_index = 3, inherited = False\<rparr>,
       \<lparr>field_id = mozjs_field_operator, child_index = 4, inherited = False\<rparr>,
       \<lparr>field_id = mozjs_field_right, child_index = 5, inherited = False\<rparr>]),
     (220, [\<lparr>field_id = mozjs_field_body, child_index = 7, inherited = False\<rparr>,
       \<lparr>field_id = mozjs_field_condition, child_index = 3, inherited = False\<rparr>,
       \<lparr>field_id = mozjs_field_condition, child_index = 4, inherited = False\<rparr>,
       \<lparr>field_id = mozjs_field_increment, child_index = 5, inherited = False\<rparr>,
       \<lparr>field_id = mozjs_field_initializer, child_index = 2, inherited = False\<rparr>]),
     (225, [\<lparr>field_id = mozjs_field_body, child_index = 7, inherited = False\<rparr>,
       \<lparr>field_id = mozjs_field_condition, child_index = 4, inherited = False\<rparr>,
       \<lparr>field_id = mozjs_field_increment, child_index = 5, inherited = False\<rparr>,
       \<lparr>field_id = mozjs_field_initializer, child_index = 2, inherited = False\<rparr>]),
     (229, [\<lparr>field_id = mozjs_field_body, child_index = 7, inherited = False\<rparr>,
       \<lparr>field_id = mozjs_field_condition, child_index = 4, inherited = False\<rparr>,
       \<lparr>field_id = mozjs_field_condition, child_index = 5, inherited = False\<rparr>,
       \<lparr>field_id = mozjs_field_initializer, child_index = 2, inherited = False\<rparr>]),
     (233, [\<lparr>field_id = mozjs_field_kind, child_index = 1, inherited = False\<rparr>,
       \<lparr>field_id = mozjs_field_kind, child_index = 2, inherited = False\<rparr>,
       \<lparr>field_id = mozjs_field_left, child_index = 3, inherited = False\<rparr>,
       \<lparr>field_id = mozjs_field_operator, child_index = 5, inherited = False\<rparr>,
       \<lparr>field_id = mozjs_field_right, child_index = 6, inherited = False\<rparr>])]"

definition mozjs_field_entries_2 :: "(nat \<times> TSFieldMapEntry list) list" where
  "mozjs_field_entries_2 =
    [(238, [\<lparr>field_id = mozjs_field_body, child_index = 8, inherited = False\<rparr>,
      \<lparr>field_id = mozjs_field_condition, child_index = 4, inherited = False\<rparr>,
      \<lparr>field_id = mozjs_field_condition, child_index = 5, inherited = False\<rparr>,
      \<lparr>field_id = mozjs_field_increment, child_index = 6, inherited = False\<rparr>,
      \<lparr>field_id = mozjs_field_initializer, child_index = 2, inherited = False\<rparr>])]"

definition mozjs_ts_field_map_entries :: "(nat \<times> TSFieldMapEntry list) list" where
  "mozjs_ts_field_map_entries = mozjs_field_entries_0 @ mozjs_field_entries_1 @
    mozjs_field_entries_2"

definition mozjs_ts_alias_sequences :: "(nat \<times> (nat \<times> TSSymbol) list) list" where
  "mozjs_ts_alias_sequences =
    [(0, [(0, 0)]),
     (1, [(0, mozjs_sym_identifier)]),
     (4, [(0, mozjs_alias_sym_property_identifier)]),
     (5, [(0, mozjs_sym_identifier)]),
     (15, [(0, mozjs_alias_sym_statement_identifier)]),
     (16, [(0, mozjs_sym_identifier)]),
     (17, [(0, mozjs_sym_identifier)]),
     (18, [(1, mozjs_alias_sym_shorthand_property_identifier)]),
     (19, [(1, mozjs_alias_sym_shorthand_property_identifier_pattern)]),
     (20, [(1, mozjs_sym_identifier)]),
     (23, [(0, mozjs_sym_identifier)]),
     (32, [(1, mozjs_alias_sym_statement_identifier)]),
     (45, [(2, mozjs_alias_sym_property_identifier)]),
     (47, [(2, mozjs_alias_sym_property_identifier)]),
     (56, [(0, mozjs_alias_sym_shorthand_property_identifier_pattern)]),
     (73, [(1, mozjs_sym_identifier)]),
     (95, [(1, mozjs_sym_identifier)]),
     (102, [(2, mozjs_sym_identifier)]),
     (109, [(2, mozjs_sym_identifier)]),
     (111, [(2, mozjs_sym_identifier)]),
     (113, [(3, mozjs_sym_identifier)]),
     (118, [(3, mozjs_sym_identifier)])]"

definition mozjs_ts_non_terminal_alias_map :: "nat list" where
  "mozjs_ts_non_terminal_alias_map =
    [0]"

definition mozjs_primary_states_0 :: "(nat \<times> TSStateId) list" where
  "mozjs_primary_states_0 =
    [(0, 0), (1, 1), (2, 2), (3, 2), (4, 2), (5, 2), (6, 2), (7, 7),
     (8, 8), (9, 9), (10, 10), (11, 11), (12, 12), (13, 9), (14, 9), (15, 15),
     (16, 16), (17, 17), (18, 16), (19, 19), (20, 20), (21, 21), (22, 17), (23, 16),
     (24, 17), (25, 16), (26, 17), (27, 16), (28, 17), (29, 19), (30, 30), (31, 30),
     (32, 32), (33, 33), (34, 34), (35, 35), (36, 36), (37, 37), (38, 38), (39, 39),
     (40, 19), (41, 41), (42, 42), (43, 19), (44, 44), (45, 45), (46, 32), (47, 41),
     (48, 48), (49, 44), (50, 50), (51, 51), (52, 52), (53, 53), (54, 33), (55, 34),
     (56, 35), (57, 36), (58, 37), (59, 38), (60, 39), (61, 45), (62, 48), (63, 63),
     (64, 51), (65, 65), (66, 52), (67, 19), (68, 19), (69, 53), (70, 50), (71, 71),
     (72, 42), (73, 65), (74, 41), (75, 19), (76, 19), (77, 19), (78, 19), (79, 19),
     (80, 80), (81, 80), (82, 80), (83, 80), (84, 80), (85, 80), (86, 86), (87, 87),
     (88, 88), (89, 89), (90, 90), (91, 91), (92, 92), (93, 93), (94, 94), (95, 95),
     (96, 96), (97, 97), (98, 98), (99, 99), (100, 100), (101, 101), (102, 102), (103, 102),
     (104, 101), (105, 105), (106, 106), (107, 105), (108, 105), (109, 105), (110, 105), (111,
       105),
     (112, 112), (113, 113), (114, 113), (115, 115), (116, 116), (117, 117), (118, 116), (119,
       119),
     (120, 119), (121, 121), (122, 122), (123, 123), (124, 124), (125, 122), (126, 126), (127,
       127),
     (128, 122), (129, 129), (130, 130), (131, 131), (132, 132), (133, 132), (134, 129), (135,
       129),
     (136, 136), (137, 137), (138, 138), (139, 139), (140, 140), (141, 141), (142, 141), (143,
       138),
     (144, 144), (145, 145), (146, 146), (147, 145), (148, 146), (149, 149)]"

definition mozjs_primary_states_1 :: "(nat \<times> TSStateId) list" where
  "mozjs_primary_states_1 =
    [(150, 144), (151, 149), (152, 152), (153, 153), (154, 154), (155, 155), (156, 156), (157,
      156),
     (158, 158), (159, 159), (160, 152), (161, 161), (162, 162), (163, 163), (164, 153), (165,
       156),
     (166, 166), (167, 167), (168, 152), (169, 153), (170, 154), (171, 171), (172, 172), (173,
       173),
     (174, 154), (175, 175), (176, 163), (177, 177), (178, 178), (179, 163), (180, 155), (181,
       181),
     (182, 182), (183, 183), (184, 184), (185, 153), (186, 154), (187, 171), (188, 152), (189,
       182),
     (190, 190), (191, 163), (192, 155), (193, 156), (194, 163), (195, 182), (196, 155), (197,
       182),
     (198, 152), (199, 153), (200, 154), (201, 178), (202, 172), (203, 163), (204, 155), (205,
       182),
     (206, 152), (207, 153), (208, 154), (209, 209), (210, 210), (211, 181), (212, 212), (213,
       156),
     (214, 214), (215, 215), (216, 156), (217, 182), (218, 155), (219, 219), (220, 220), (221,
       221),
     (222, 222), (223, 223), (224, 224), (225, 225), (226, 226), (227, 227), (228, 228), (229,
       229),
     (230, 230), (231, 231), (232, 232), (233, 233), (234, 234), (235, 235), (236, 236), (237,
       237),
     (238, 238), (239, 239), (240, 240), (241, 241), (242, 242), (243, 223), (244, 228), (245,
       224),
     (246, 246), (247, 227), (248, 230), (249, 231), (250, 232), (251, 233), (252, 234), (253,
       235),
     (254, 236), (255, 237), (256, 238), (257, 239), (258, 240), (259, 241), (260, 242), (261,
       246),
     (262, 262), (263, 262), (264, 264), (265, 265), (266, 225), (267, 267), (268, 268), (269,
       269),
     (270, 270), (271, 265), (272, 265), (273, 223), (274, 228), (275, 224), (276, 227), (277,
       230),
     (278, 231), (279, 232), (280, 234), (281, 235), (282, 236), (283, 237), (284, 238), (285,
       239),
     (286, 240), (287, 241), (288, 242), (289, 246), (290, 262), (291, 225), (292, 292), (293,
       228),
     (294, 224), (295, 227), (296, 230), (297, 231), (298, 219), (299, 232)]"

definition mozjs_primary_states_2 :: "(nat \<times> TSStateId) list" where
  "mozjs_primary_states_2 =
    [(300, 234), (301, 235), (302, 236), (303, 237), (304, 238), (305, 239), (306, 240), (307,
      241),
     (308, 242), (309, 246), (310, 262), (311, 268), (312, 225), (313, 313), (314, 223), (315,
       228),
     (316, 224), (317, 227), (318, 230), (319, 231), (320, 232), (321, 234), (322, 235), (323,
       236),
     (324, 237), (325, 238), (326, 239), (327, 240), (328, 241), (329, 242), (330, 246), (331,
       262),
     (332, 225), (333, 219), (334, 223), (335, 228), (336, 224), (337, 227), (338, 230), (339,
       231),
     (340, 232), (341, 234), (342, 235), (343, 236), (344, 237), (345, 238), (346, 239), (347,
       240),
     (348, 241), (349, 242), (350, 246), (351, 262), (352, 225), (353, 219), (354, 219), (355,
       223),
     (356, 219), (357, 357), (358, 357), (359, 357), (360, 360), (361, 361), (362, 361), (363,
       361),
     (364, 360), (365, 360), (366, 366), (367, 366), (368, 368), (369, 88), (370, 86), (371, 371),
     (372, 372), (373, 373), (374, 366), (375, 371), (376, 376), (377, 366), (378, 373), (379,
       376),
     (380, 366), (381, 366), (382, 371), (383, 90), (384, 87), (385, 372), (386, 386), (387, 387),
     (388, 388), (389, 389), (390, 390), (391, 389), (392, 373), (393, 91), (394, 89), (395, 395),
     (396, 87), (397, 86), (398, 90), (399, 399), (400, 88), (401, 401), (402, 402), (403, 403),
     (404, 404), (405, 405), (406, 406), (407, 407), (408, 408), (409, 409), (410, 410), (411,
       411),
     (412, 412), (413, 413), (414, 414), (415, 415), (416, 416), (417, 417), (418, 418), (419,
       419),
     (420, 420), (421, 421), (422, 422), (423, 423), (424, 424), (425, 425), (426, 426), (427,
       427),
     (428, 428), (429, 429), (430, 430), (431, 431), (432, 432), (433, 433), (434, 434), (435,
       435),
     (436, 436), (437, 437), (438, 438), (439, 439), (440, 366), (441, 441), (442, 442), (443,
       443),
     (444, 366), (445, 445), (446, 446), (447, 447), (448, 448), (449, 449)]"

definition mozjs_primary_states_3 :: "(nat \<times> TSStateId) list" where
  "mozjs_primary_states_3 =
    [(450, 450), (451, 451), (452, 452), (453, 453), (454, 454), (455, 455), (456, 456), (457,
      457),
     (458, 453), (459, 459), (460, 460), (461, 461), (462, 462), (463, 463), (464, 464), (465,
       465),
     (466, 466), (467, 467), (468, 468), (469, 469), (470, 470), (471, 471), (472, 472), (473,
       473),
     (474, 474), (475, 475), (476, 476), (477, 477), (478, 478), (479, 479), (480, 480), (481,
       481),
     (482, 366), (483, 366), (484, 366), (485, 485), (486, 386), (487, 487), (488, 488), (489,
       489),
     (490, 395), (491, 491), (492, 492), (493, 493), (494, 494), (495, 495), (496, 491), (497,
       497),
     (498, 498), (499, 499), (500, 491), (501, 501), (502, 502), (503, 503), (504, 504), (505,
       395),
     (506, 504), (507, 507), (508, 508), (509, 509), (510, 510), (511, 502), (512, 512), (513,
       513),
     (514, 514), (515, 515), (516, 516), (517, 517), (518, 518), (519, 519), (520, 520), (521,
       521),
     (522, 522), (523, 523), (524, 524), (525, 499), (526, 494), (527, 502), (528, 528), (529,
       529),
     (530, 497), (531, 531), (532, 498), (533, 502), (534, 492), (535, 493), (536, 502), (537,
       531),
     (538, 538), (539, 504), (540, 540), (541, 504), (542, 542), (543, 502), (544, 395), (545,
       495),
     (546, 499), (547, 538), (548, 529), (549, 528), (550, 504), (551, 504), (552, 552), (553,
       540),
     (554, 554), (555, 554), (556, 499), (557, 557), (558, 558), (559, 499), (560, 542), (561,
       538),
     (562, 562), (563, 558), (564, 528), (565, 504), (566, 502), (567, 504), (568, 502), (569,
       554),
     (570, 502), (571, 502), (572, 502), (573, 557), (574, 504), (575, 552), (576, 504), (577,
       504),
     (578, 499), (579, 499), (580, 562), (581, 92), (582, 582), (583, 583), (584, 584), (585,
       585),
     (586, 586), (587, 587), (588, 88), (589, 589), (590, 86), (591, 591), (592, 592), (593, 593),
     (594, 594), (595, 595), (596, 596), (597, 597), (598, 598), (599, 599)]"

definition mozjs_primary_states_4 :: "(nat \<times> TSStateId) list" where
  "mozjs_primary_states_4 =
    [(600, 600), (601, 601), (602, 602), (603, 603), (604, 604), (605, 605), (606, 606), (607,
      607),
     (608, 608), (609, 609), (610, 610), (611, 611), (612, 612), (613, 613), (614, 614), (615,
       91),
     (616, 616), (617, 617), (618, 618), (619, 619), (620, 620), (621, 621), (622, 622), (623,
       623),
     (624, 624), (625, 625), (626, 626), (627, 627), (628, 628), (629, 89), (630, 630), (631, 87),
     (632, 632), (633, 633), (634, 90), (635, 635), (636, 636), (637, 637), (638, 638), (639,
       639),
     (640, 640), (641, 641), (642, 411), (643, 643), (644, 644), (645, 645), (646, 646), (647,
       647),
     (648, 648), (649, 649), (650, 650), (651, 651), (652, 652), (653, 653), (654, 466), (655,
       610),
     (656, 429), (657, 657), (658, 658), (659, 659), (660, 660), (661, 661), (662, 662), (663,
       663),
     (664, 664), (665, 665), (666, 666), (667, 667), (668, 668), (669, 428), (670, 670), (671,
       582),
     (672, 672), (673, 673), (674, 674), (675, 675), (676, 676), (677, 677), (678, 678), (679,
       589),
     (680, 467), (681, 681), (682, 583), (683, 683), (684, 684), (685, 650), (686, 599), (687,
       633),
     (688, 610), (689, 585), (690, 690), (691, 599), (692, 587), (693, 584), (694, 630), (695,
       92),
     (696, 92), (697, 650), (698, 586), (699, 589), (700, 591), (701, 657), (702, 619), (703,
       672),
     (704, 621), (705, 622), (706, 623), (707, 673), (708, 678), (709, 681), (710, 658), (711,
       624),
     (712, 659), (713, 660), (714, 661), (715, 662), (716, 663), (717, 664), (718, 666), (719,
       668),
     (720, 653), (721, 670), (722, 674), (723, 676), (724, 673), (725, 625), (726, 665), (727,
       677),
     (728, 684), (729, 620), (730, 678), (731, 681), (732, 683), (733, 628), (734, 626), (735,
       608),
     (736, 683), (737, 602), (738, 637), (739, 603), (740, 607), (741, 741), (742, 604), (743,
       638),
     (744, 618), (745, 93), (746, 96), (747, 632), (748, 627), (749, 665)]"

definition mozjs_primary_states_5 :: "(nat \<times> TSStateId) list" where
  "mozjs_primary_states_5 =
    [(750, 657), (751, 741), (752, 677), (753, 94), (754, 593), (755, 672), (756, 597), (757,
      658),
     (758, 623), (759, 659), (760, 595), (761, 660), (762, 95), (763, 667), (764, 650), (765,
       661),
     (766, 599), (767, 610), (768, 613), (769, 662), (770, 98), (771, 663), (772, 614), (773,
       601),
     (774, 594), (775, 675), (776, 611), (777, 612), (778, 616), (779, 617), (780, 664), (781,
       666),
     (782, 668), (783, 653), (784, 784), (785, 684), (786, 670), (787, 605), (788, 651), (789,
       606),
     (790, 640), (791, 649), (792, 635), (793, 645), (794, 641), (795, 643), (796, 674), (797,
       609),
     (798, 589), (799, 646), (800, 652), (801, 648), (802, 99), (803, 592), (804, 639), (805,
       596),
     (806, 644), (807, 647), (808, 676), (809, 598), (810, 100), (811, 600), (812, 675), (813,
       97),
     (814, 667), (815, 589), (816, 636), (817, 599), (818, 818), (819, 610), (820, 820), (821,
       821),
     (822, 822), (823, 823), (824, 824), (825, 825), (826, 826), (827, 784), (828, 828), (829,
       829),
     (830, 830), (831, 650), (832, 832), (833, 833), (834, 834), (835, 835), (836, 836), (837,
       837),
     (838, 838), (839, 839), (840, 840), (841, 841), (842, 842), (843, 843), (844, 844), (845,
       845),
     (846, 846), (847, 847), (848, 848), (849, 849), (850, 850), (851, 851), (852, 690), (853,
       853),
     (854, 854), (855, 741), (856, 826), (857, 650), (858, 599), (859, 610), (860, 833), (861,
       861),
     (862, 845), (863, 851), (864, 853), (865, 854), (866, 866), (867, 867), (868, 833), (869,
       869),
     (870, 851), (871, 833), (872, 869), (873, 833), (874, 874), (875, 833), (876, 866), (877,
       869),
     (878, 878), (879, 834), (880, 835), (881, 844), (882, 882), (883, 883), (884, 884), (885,
       878),
     (886, 886), (887, 887), (888, 867), (889, 886), (890, 846), (891, 869), (892, 677), (893,
       663),
     (894, 664), (895, 666), (896, 668), (897, 653), (898, 670), (899, 674)]"

definition mozjs_primary_states_6 :: "(nat \<times> TSStateId) list" where
  "mozjs_primary_states_6 =
    [(900, 676), (901, 665), (902, 677), (903, 684), (904, 683), (905, 905), (906, 906), (907,
      623),
     (908, 908), (909, 909), (910, 910), (911, 675), (912, 589), (913, 667), (914, 657), (915,
       672),
     (916, 675), (917, 667), (918, 672), (919, 673), (920, 673), (921, 678), (922, 681), (923,
       658),
     (924, 659), (925, 660), (926, 661), (927, 662), (928, 663), (929, 662), (930, 666), (931,
       668),
     (932, 653), (933, 670), (934, 674), (935, 676), (936, 665), (937, 677), (938, 684), (939,
       678),
     (940, 683), (941, 681), (942, 675), (943, 667), (944, 672), (945, 673), (946, 678), (947,
       681),
     (948, 658), (949, 659), (950, 660), (951, 661), (952, 662), (953, 663), (954, 664), (955,
       666),
     (956, 668), (957, 653), (958, 670), (959, 674), (960, 676), (961, 665), (962, 658), (963,
       684),
     (964, 683), (965, 825), (966, 659), (967, 660), (968, 657), (969, 589), (970, 657), (971,
       661),
     (972, 664), (973, 973), (974, 973), (975, 826), (976, 976), (977, 977), (978, 973), (979,
       973),
     (980, 973), (981, 977), (982, 982), (983, 973), (984, 984), (985, 984), (986, 986), (987,
       987),
     (988, 987), (989, 989), (990, 990), (991, 991), (992, 990), (993, 987), (994, 990), (995,
       989),
     (996, 996), (997, 997), (998, 998), (999, 998), (1000, 1000), (1001, 998), (1002, 1000),
       (1003, 998),
     (1004, 1000), (1005, 998), (1006, 1000), (1007, 998), (1008, 1000), (1009, 1000), (1010,
       1010), (1011, 1010),
     (1012, 1010), (1013, 1013), (1014, 1010), (1015, 1010), (1016, 1010), (1017, 1017), (1018,
       1018), (1019, 1019),
     (1020, 1020), (1021, 1021), (1022, 1022), (1023, 1023), (1024, 1024), (1025, 1025), (1026,
       1026), (1027, 1027),
     (1028, 1028), (1029, 1029), (1030, 1030), (1031, 1031), (1032, 1032), (1033, 1033), (1034,
       1034), (1035, 1035),
     (1036, 1036), (1037, 1037), (1038, 1038), (1039, 1039), (1040, 1040), (1041, 1041), (1042,
       1042), (1043, 1043),
     (1044, 1044), (1045, 1045), (1046, 1046), (1047, 1047), (1048, 1048), (1049, 1049)]"

definition mozjs_primary_states_7 :: "(nat \<times> TSStateId) list" where
  "mozjs_primary_states_7 =
    [(1050, 1050), (1051, 1051), (1052, 88), (1053, 1053), (1054, 1054), (1055, 1055), (1056,
      1056), (1057, 86),
     (1058, 1058), (1059, 1059), (1060, 1060), (1061, 1061), (1062, 1062), (1063, 1045), (1064,
       1064), (1065, 1065),
     (1066, 1066), (1067, 1067), (1068, 1068), (1069, 1069), (1070, 1070), (1071, 1071), (1072,
       1072), (1073, 1073),
     (1074, 1074), (1075, 1075), (1076, 1027), (1077, 87), (1078, 1032), (1079, 1032), (1080,
       1080), (1081, 1081),
     (1082, 1022), (1083, 1083), (1084, 1084), (1085, 90), (1086, 1081), (1087, 1087), (1088,
       1088), (1089, 1089),
     (1090, 1090), (1091, 1091), (1092, 1092), (1093, 1093), (1094, 1091), (1095, 1095), (1096,
       1096), (1097, 1036),
     (1098, 1098), (1099, 1099), (1100, 1100), (1101, 1040), (1102, 1037), (1103, 1103), (1104,
       1035), (1105, 1033),
     (1106, 1106), (1107, 1107), (1108, 628), (1109, 592), (1110, 608), (1111, 1111), (1112,
       1112), (1113, 1107),
     (1114, 1036), (1115, 1103), (1116, 1098), (1117, 1099), (1118, 1100), (1119, 1106), (1120,
       1120), (1121, 1092),
     (1122, 1093), (1123, 1095), (1124, 1120), (1125, 1125), (1126, 1126), (1127, 1126), (1128,
       1128), (1129, 1129),
     (1130, 1130), (1131, 1125), (1132, 1132), (1133, 1133), (1134, 1133), (1135, 1135), (1136,
       1136), (1137, 1136),
     (1138, 1128), (1139, 1130), (1140, 1129), (1141, 1132), (1142, 1135), (1143, 1143), (1144,
       1143), (1145, 1143),
     (1146, 1143), (1147, 1143), (1148, 1143), (1149, 1149), (1150, 1150), (1151, 1150), (1152,
       1152), (1153, 1153),
     (1154, 1153), (1155, 1150), (1156, 1152), (1157, 1153), (1158, 1152), (1159, 1150), (1160,
       1152), (1161, 1153),
     (1162, 1162), (1163, 1163), (1164, 1163), (1165, 1163), (1166, 1162), (1167, 1167), (1168,
       1163), (1169, 1162),
     (1170, 1162), (1171, 1171), (1172, 1172), (1173, 1171), (1174, 1174), (1175, 1175), (1176,
       1176), (1177, 1176),
     (1178, 1171), (1179, 1179), (1180, 1180), (1181, 1181), (1182, 1175), (1183, 1183), (1184,
       1174), (1185, 1175),
     (1186, 1176), (1187, 1180), (1188, 1180), (1189, 1180), (1190, 1171), (1191, 1174), (1192,
       1175), (1193, 1176),
     (1194, 1194), (1195, 1174), (1196, 1196), (1197, 1197), (1198, 1198), (1199, 1199)]"

definition mozjs_primary_states_8 :: "(nat \<times> TSStateId) list" where
  "mozjs_primary_states_8 =
    [(1200, 1200), (1201, 1201), (1202, 1202), (1203, 1203), (1204, 1204), (1205, 1205), (1206,
      1206), (1207, 1207),
     (1208, 1208), (1209, 1209), (1210, 1210), (1211, 1211), (1212, 1212), (1213, 1213), (1214,
       1214), (1215, 1215),
     (1216, 1216), (1217, 1217), (1218, 1218), (1219, 1209), (1220, 1220), (1221, 1221), (1222,
       1222), (1223, 1209),
     (1224, 1224), (1225, 1209), (1226, 1209), (1227, 1227), (1228, 1228), (1229, 1209), (1230,
       1230), (1231, 1231),
     (1232, 1232), (1233, 1233), (1234, 1234), (1235, 1235), (1236, 1236), (1237, 1237), (1238,
       1238), (1239, 1213),
     (1240, 1240), (1241, 1241), (1242, 1242), (1243, 1216), (1244, 1236), (1245, 1245), (1246,
       1246), (1247, 1224),
     (1248, 1217), (1249, 1228), (1250, 1250), (1251, 1251), (1252, 1252), (1253, 1232), (1254,
       630), (1255, 1255),
     (1256, 633), (1257, 1257), (1258, 1258), (1259, 1259), (1260, 1260), (1261, 1259), (1262,
       1262), (1263, 1263),
     (1264, 1264), (1265, 1265), (1266, 633), (1267, 1267), (1268, 1268), (1269, 1269), (1270,
       1270), (1271, 1271),
     (1272, 1271), (1273, 1270), (1274, 1274), (1275, 1275), (1276, 1258), (1277, 1277), (1278,
       1278), (1279, 1279),
     (1280, 1280), (1281, 1281), (1282, 1282), (1283, 1283), (1284, 1270), (1285, 1277), (1286,
       1275), (1287, 1287),
     (1288, 1288), (1289, 1289), (1290, 1265), (1291, 1280), (1292, 1292), (1293, 596), (1294,
       1294), (1295, 1295),
     (1296, 1296), (1297, 614), (1298, 641), (1299, 643), (1300, 619), (1301, 620), (1302, 626),
       (1303, 627),
     (1304, 600), (1305, 1275), (1306, 1282), (1307, 596), (1308, 1278), (1309, 1287), (1310,
       1310), (1311, 614),
     (1312, 1270), (1313, 641), (1314, 643), (1315, 1315), (1316, 619), (1317, 620), (1318, 626),
       (1319, 627),
     (1320, 600), (1321, 1321), (1322, 1274), (1323, 630), (1324, 1275), (1325, 1325), (1326,
       1326), (1327, 1327),
     (1328, 1328), (1329, 1329), (1330, 1208), (1331, 1331), (1332, 1332), (1333, 1333), (1334,
       1334), (1335, 1335),
     (1336, 1336), (1337, 1337), (1338, 1338), (1339, 1339), (1340, 1333), (1341, 1332), (1342,
       1342), (1343, 1343),
     (1344, 1344), (1345, 1345), (1346, 1338), (1347, 1347), (1348, 1348), (1349, 1349)]"

definition mozjs_primary_states_9 :: "(nat \<times> TSStateId) list" where
  "mozjs_primary_states_9 =
    [(1350, 1350), (1351, 1351), (1352, 1352), (1353, 1326), (1354, 1354), (1355, 1355), (1356,
      1356), (1357, 1357),
     (1358, 1358), (1359, 1359), (1360, 1328), (1361, 1329), (1362, 1362), (1363, 1328), (1364,
       1329), (1365, 1365),
     (1366, 1222), (1367, 1367), (1368, 1368), (1369, 1362), (1370, 1338), (1371, 1334), (1372,
       1328), (1373, 1373),
     (1374, 1374), (1375, 1329), (1376, 1376), (1377, 1377), (1378, 1378), (1379, 1342), (1380,
       1380), (1381, 1381),
     (1382, 1338), (1383, 1343), (1384, 1384), (1385, 1354), (1386, 1380), (1387, 1387), (1388,
       1233), (1389, 1251),
     (1390, 1356), (1391, 1337), (1392, 1332), (1393, 1393), (1394, 1381), (1395, 1331), (1396,
       1367), (1397, 1325),
     (1398, 1398), (1399, 1257), (1400, 1400), (1401, 1310), (1402, 1365), (1403, 1327), (1404,
       1404), (1405, 1405),
     (1406, 1406), (1407, 1332), (1408, 1408), (1409, 1409), (1410, 1410), (1411, 1411), (1412,
       1412), (1413, 1413),
     (1414, 1408), (1415, 1415), (1416, 1416), (1417, 1417), (1418, 1418), (1419, 1419), (1420,
       1420), (1421, 1421),
     (1422, 1422), (1423, 1420), (1424, 1422), (1425, 1425), (1426, 1425), (1427, 1422), (1428,
       1428), (1429, 1429),
     (1430, 1425), (1431, 1431), (1432, 1432), (1433, 1432), (1434, 1411), (1435, 1435), (1436,
       1431), (1437, 1418),
     (1438, 1419), (1439, 1439), (1440, 1439), (1441, 1441), (1442, 1411), (1443, 1443), (1444,
       1435), (1445, 1445),
     (1446, 1439), (1447, 1447), (1448, 1448), (1449, 1449), (1450, 1441), (1451, 1451), (1452,
       1452), (1453, 1453),
     (1454, 1454), (1455, 1455), (1456, 1449), (1457, 1457), (1458, 1458), (1459, 1459), (1460,
       1460), (1461, 1461),
     (1462, 403), (1463, 1463), (1464, 1419), (1465, 1410), (1466, 1466), (1467, 1439), (1468,
       1443), (1469, 1469),
     (1470, 1470), (1471, 1435), (1472, 1472), (1473, 1473), (1474, 1474), (1475, 1441), (1476,
       1476), (1477, 1477),
     (1478, 1412), (1479, 1479), (1480, 1413), (1481, 1481), (1482, 1415), (1483, 1416), (1484,
       1484), (1485, 1485),
     (1486, 1486), (1487, 1487), (1488, 1488), (1489, 1489), (1490, 1490), (1491, 1491), (1492,
       1492), (1493, 1493),
     (1494, 1494), (1495, 1451), (1496, 1496), (1497, 1459), (1498, 1452), (1499, 1499)]"

definition mozjs_primary_states_10 :: "(nat \<times> TSStateId) list" where
  "mozjs_primary_states_10 =
    [(1500, 1500), (1501, 1476), (1502, 1429), (1503, 1503), (1504, 1504), (1505, 1447), (1506,
      1461), (1507, 1507),
     (1508, 1418), (1509, 1509), (1510, 1510), (1511, 1511), (1512, 1512), (1513, 1513), (1514,
       1514), (1515, 1515),
     (1516, 1516), (1517, 1509), (1518, 1518), (1519, 1519), (1520, 1520), (1521, 1521), (1522,
       1522), (1523, 1518),
     (1524, 1524), (1525, 1525), (1526, 1525), (1527, 1527), (1528, 1528), (1529, 1529), (1530,
       1530), (1531, 1531),
     (1532, 1532), (1533, 1533), (1534, 1534), (1535, 1535), (1536, 1536), (1537, 1537), (1538,
       1538), (1539, 1539),
     (1540, 1540), (1541, 1541), (1542, 1542), (1543, 1543), (1544, 1544), (1545, 1545), (1546,
       1546), (1547, 1349),
     (1548, 1528), (1549, 1549), (1550, 1550), (1551, 1535), (1552, 1552), (1553, 1536), (1554,
       1554), (1555, 1555),
     (1556, 1556), (1557, 1545), (1558, 1558), (1559, 1559), (1560, 1560), (1561, 1561), (1562,
       1562), (1563, 1516),
     (1564, 1564), (1565, 1531), (1566, 1566), (1567, 1567), (1568, 1568), (1569, 1569), (1570,
       1570), (1571, 1571),
     (1572, 1572), (1573, 1573), (1574, 1574), (1575, 1575), (1576, 1576), (1577, 1577), (1578,
       1578), (1579, 1579),
     (1580, 1580), (1581, 1581), (1582, 1582), (1583, 1583), (1584, 1584), (1585, 1585), (1586,
       1586), (1587, 1587),
     (1588, 1588), (1589, 1589), (1590, 1562), (1591, 1591), (1592, 1592), (1593, 1593), (1594,
       1539), (1595, 1550),
     (1596, 1554), (1597, 1555), (1598, 1556), (1599, 1561), (1600, 1566), (1601, 1567), (1602,
       1568), (1603, 1570),
     (1604, 1573), (1605, 1574), (1606, 1575), (1607, 1607), (1608, 1524), (1609, 1609), (1610,
       1519), (1611, 1611),
     (1612, 1612), (1613, 1613), (1614, 1614), (1615, 1615), (1616, 1616), (1617, 1617), (1618,
       1520), (1619, 1619),
     (1620, 1527), (1621, 1621), (1622, 1607), (1623, 1623), (1624, 1624), (1625, 1625), (1626,
       1540), (1627, 1621),
     (1628, 1582), (1629, 1629), (1630, 1630), (1631, 1631), (1632, 1588), (1633, 1633), (1634,
       1617), (1635, 1635),
     (1636, 1636), (1637, 1514), (1638, 1638), (1639, 1639), (1640, 1640), (1641, 1641), (1642,
       1521), (1643, 1643),
     (1644, 1644), (1645, 1532), (1646, 1646), (1647, 1592), (1648, 1648), (1649, 1583)]"

definition mozjs_primary_states_11 :: "(nat \<times> TSStateId) list" where
  "mozjs_primary_states_11 =
    [(1650, 1549), (1651, 1651), (1652, 1584), (1653, 1631), (1654, 1654), (1655, 1552), (1656,
      1656), (1657, 1560),
     (1658, 1569), (1659, 1659), (1660, 1660), (1661, 606), (1662, 1576), (1663, 1577), (1664,
       1578), (1665, 1623),
     (1666, 1666), (1667, 1667), (1668, 1668), (1669, 1669), (1670, 1670), (1671, 1671), (1672,
       1624), (1673, 1673),
     (1674, 1674), (1675, 1625), (1676, 1519), (1677, 1585), (1678, 1670), (1679, 1586), (1680,
       1587), (1681, 1629),
     (1682, 1682), (1683, 1683), (1684, 1684), (1685, 647), (1686, 648), (1687, 1687), (1688,
       1688), (1689, 1689),
     (1690, 1690), (1691, 1691), (1692, 1692), (1693, 1589), (1694, 1694), (1695, 1695), (1696,
       1696), (1697, 1697),
     (1698, 1698), (1699, 1699), (1700, 1700), (1701, 1683), (1702, 1702), (1703, 1684), (1704,
       1688), (1705, 1689),
     (1706, 1690), (1707, 1519), (1708, 1611), (1709, 1612), (1710, 1613), (1711, 1691), (1712,
       1712), (1713, 1713),
     (1714, 1520), (1715, 1692), (1716, 1643), (1717, 1695), (1718, 1644), (1719, 1719), (1720,
       1720), (1721, 1636),
     (1722, 1648), (1723, 1674), (1724, 1638), (1725, 1520), (1726, 1682), (1727, 1697), (1728,
       1696), (1729, 1614),
     (1730, 1615), (1731, 1731), (1732, 1616), (1733, 1698), (1734, 1734), (1735, 1537), (1736,
       1736), (1737, 1737),
     (1738, 1738), (1739, 1739), (1740, 1740), (1741, 1741), (1742, 1699), (1743, 1743), (1744,
       1744), (1745, 1559),
     (1746, 1746), (1747, 1700), (1748, 1748), (1749, 1749), (1750, 1713), (1751, 1751), (1752,
       1752), (1753, 1702),
     (1754, 1630), (1755, 1755), (1756, 1756), (1757, 1757), (1758, 1758), (1759, 1759), (1760,
       1760), (1761, 1761),
     (1762, 1762), (1763, 1763), (1764, 1761), (1765, 1758), (1766, 1766), (1767, 1767), (1768,
       1768), (1769, 1769),
     (1770, 1762), (1771, 1771), (1772, 1772), (1773, 1760), (1774, 1774), (1775, 1771), (1776,
       1776), (1777, 1777),
     (1778, 1778), (1779, 1377), (1780, 1771), (1781, 1781), (1782, 1782), (1783, 1783), (1784,
       1784), (1785, 1785),
     (1786, 1761), (1787, 1787), (1788, 1777), (1789, 1771), (1790, 1790), (1791, 1791), (1792,
       1792), (1793, 1790),
     (1794, 1760), (1795, 1795), (1796, 1796), (1797, 1797), (1798, 1798), (1799, 1791)]"

definition mozjs_primary_states_12 :: "(nat \<times> TSStateId) list" where
  "mozjs_primary_states_12 =
    [(1800, 1757), (1801, 1801), (1802, 1802), (1803, 1803), (1804, 1804), (1805, 1795), (1806,
      1806), (1807, 1761),
     (1808, 1766), (1809, 1809), (1810, 1790), (1811, 1766), (1812, 1777), (1813, 1791), (1814,
       1814), (1815, 1769),
     (1816, 1816), (1817, 1817), (1818, 1818), (1819, 1771), (1820, 1785), (1821, 1821), (1822,
       1791), (1823, 1801),
     (1824, 1824), (1825, 1761), (1826, 1824), (1827, 1766), (1828, 1777), (1829, 1829), (1830,
       1771), (1831, 1790),
     (1832, 1791), (1833, 1833), (1834, 1834), (1835, 1760), (1836, 1836), (1837, 1769), (1838,
       1777), (1839, 1797),
     (1840, 1840), (1841, 1841), (1842, 1842), (1843, 1843), (1844, 1844), (1845, 1766), (1846,
       1846), (1847, 1777),
     (1848, 1791), (1849, 1761), (1850, 1850), (1851, 1851), (1852, 1844), (1853, 1853), (1854,
       1801), (1855, 1855),
     (1856, 1856), (1857, 1801), (1858, 1858), (1859, 1769), (1860, 1785), (1861, 1836), (1862,
       1785), (1863, 1863),
     (1864, 1834), (1865, 1865), (1866, 1766), (1867, 1816), (1868, 1868), (1869, 1869), (1870,
       1870), (1871, 1871),
     (1872, 1872), (1873, 1873), (1874, 1874), (1875, 1804), (1876, 1790), (1877, 1796), (1878,
       1790)]"

definition mozjs_ts_primary_state_ids :: "(nat \<times> TSStateId) list" where
  "mozjs_ts_primary_state_ids = mozjs_primary_states_0 @ mozjs_primary_states_1 @
    mozjs_primary_states_2 @ mozjs_primary_states_3 @ mozjs_primary_states_4 @
    mozjs_primary_states_5 @ mozjs_primary_states_6 @ mozjs_primary_states_7 @
    mozjs_primary_states_8 @ mozjs_primary_states_9 @ mozjs_primary_states_10 @
    mozjs_primary_states_11 @ mozjs_primary_states_12"

section \<open>Lex modes\<close>

definition mozjs_lex_modes_0 :: "(nat \<times> TSLexMode) list" where
  "mozjs_lex_modes_0 =
    [(0, \<lparr>lex_state = 0, external_lex_state = 1\<rparr>), (1, \<lparr>lex_state = 138,
      external_lex_state = 2\<rparr>),
     (2, \<lparr>lex_state = 15, external_lex_state = 2\<rparr>), (3, \<lparr>lex_state = 15,
       external_lex_state = 2\<rparr>),
     (4, \<lparr>lex_state = 15, external_lex_state = 2\<rparr>), (5, \<lparr>lex_state = 15,
       external_lex_state = 2\<rparr>),
     (6, \<lparr>lex_state = 15, external_lex_state = 2\<rparr>), (7, \<lparr>lex_state = 138,
       external_lex_state = 2\<rparr>),
     (8, \<lparr>lex_state = 138, external_lex_state = 2\<rparr>), (9, \<lparr>lex_state = 13,
       external_lex_state = 3\<rparr>),
     (10, \<lparr>lex_state = 138, external_lex_state = 2\<rparr>), (11, \<lparr>lex_state = 138,
       external_lex_state = 2\<rparr>),
     (12, \<lparr>lex_state = 138, external_lex_state = 2\<rparr>), (13, \<lparr>lex_state = 13,
       external_lex_state = 3\<rparr>),
     (14, \<lparr>lex_state = 13, external_lex_state = 3\<rparr>), (15, \<lparr>lex_state = 138,
       external_lex_state = 2\<rparr>),
     (16, \<lparr>lex_state = 138, external_lex_state = 2\<rparr>), (17, \<lparr>lex_state = 138,
       external_lex_state = 2\<rparr>),
     (18, \<lparr>lex_state = 138, external_lex_state = 2\<rparr>), (19, \<lparr>lex_state = 13,
       external_lex_state = 4\<rparr>),
     (20, \<lparr>lex_state = 138, external_lex_state = 2\<rparr>), (21, \<lparr>lex_state = 138,
       external_lex_state = 2\<rparr>),
     (22, \<lparr>lex_state = 138, external_lex_state = 2\<rparr>), (23, \<lparr>lex_state = 138,
       external_lex_state = 2\<rparr>),
     (24, \<lparr>lex_state = 138, external_lex_state = 2\<rparr>), (25, \<lparr>lex_state = 138,
       external_lex_state = 2\<rparr>),
     (26, \<lparr>lex_state = 138, external_lex_state = 2\<rparr>), (27, \<lparr>lex_state = 138,
       external_lex_state = 2\<rparr>),
     (28, \<lparr>lex_state = 138, external_lex_state = 2\<rparr>), (29, \<lparr>lex_state = 13,
       external_lex_state = 4\<rparr>),
     (30, \<lparr>lex_state = 13, external_lex_state = 3\<rparr>), (31, \<lparr>lex_state = 13,
       external_lex_state = 3\<rparr>),
     (32, \<lparr>lex_state = 138, external_lex_state = 2\<rparr>), (33, \<lparr>lex_state = 138,
       external_lex_state = 2\<rparr>),
     (34, \<lparr>lex_state = 138, external_lex_state = 2\<rparr>), (35, \<lparr>lex_state = 138,
       external_lex_state = 2\<rparr>),
     (36, \<lparr>lex_state = 138, external_lex_state = 2\<rparr>), (37, \<lparr>lex_state = 138,
       external_lex_state = 2\<rparr>),
     (38, \<lparr>lex_state = 138, external_lex_state = 2\<rparr>), (39, \<lparr>lex_state = 138,
       external_lex_state = 2\<rparr>),
     (40, \<lparr>lex_state = 13, external_lex_state = 3\<rparr>), (41, \<lparr>lex_state = 13,
       external_lex_state = 4\<rparr>),
     (42, \<lparr>lex_state = 13, external_lex_state = 4\<rparr>), (43, \<lparr>lex_state = 13,
       external_lex_state = 3\<rparr>),
     (44, \<lparr>lex_state = 138, external_lex_state = 2\<rparr>), (45, \<lparr>lex_state = 138,
       external_lex_state = 2\<rparr>),
     (46, \<lparr>lex_state = 138, external_lex_state = 2\<rparr>), (47, \<lparr>lex_state = 13,
       external_lex_state = 4\<rparr>),
     (48, \<lparr>lex_state = 138, external_lex_state = 2\<rparr>), (49, \<lparr>lex_state = 138,
       external_lex_state = 2\<rparr>),
     (50, \<lparr>lex_state = 138, external_lex_state = 2\<rparr>), (51, \<lparr>lex_state = 138,
       external_lex_state = 2\<rparr>),
     (52, \<lparr>lex_state = 138, external_lex_state = 2\<rparr>), (53, \<lparr>lex_state = 138,
       external_lex_state = 2\<rparr>),
     (54, \<lparr>lex_state = 138, external_lex_state = 2\<rparr>), (55, \<lparr>lex_state = 138,
       external_lex_state = 2\<rparr>),
     (56, \<lparr>lex_state = 138, external_lex_state = 2\<rparr>), (57, \<lparr>lex_state = 138,
       external_lex_state = 2\<rparr>),
     (58, \<lparr>lex_state = 138, external_lex_state = 2\<rparr>), (59, \<lparr>lex_state = 138,
       external_lex_state = 2\<rparr>),
     (60, \<lparr>lex_state = 138, external_lex_state = 2\<rparr>), (61, \<lparr>lex_state = 138,
       external_lex_state = 2\<rparr>),
     (62, \<lparr>lex_state = 138, external_lex_state = 2\<rparr>), (63, \<lparr>lex_state = 138,
       external_lex_state = 2\<rparr>),
     (64, \<lparr>lex_state = 138, external_lex_state = 2\<rparr>), (65, \<lparr>lex_state = 13,
       external_lex_state = 4\<rparr>),
     (66, \<lparr>lex_state = 138, external_lex_state = 2\<rparr>), (67, \<lparr>lex_state = 13,
       external_lex_state = 3\<rparr>),
     (68, \<lparr>lex_state = 13, external_lex_state = 3\<rparr>), (69, \<lparr>lex_state = 138,
       external_lex_state = 2\<rparr>),
     (70, \<lparr>lex_state = 138, external_lex_state = 2\<rparr>), (71, \<lparr>lex_state = 13,
       external_lex_state = 3\<rparr>),
     (72, \<lparr>lex_state = 13, external_lex_state = 4\<rparr>), (73, \<lparr>lex_state = 13,
       external_lex_state = 4\<rparr>),
     (74, \<lparr>lex_state = 13, external_lex_state = 4\<rparr>), (75, \<lparr>lex_state = 13,
       external_lex_state = 4\<rparr>),
     (76, \<lparr>lex_state = 13, external_lex_state = 4\<rparr>), (77, \<lparr>lex_state = 13,
       external_lex_state = 4\<rparr>),
     (78, \<lparr>lex_state = 13, external_lex_state = 4\<rparr>), (79, \<lparr>lex_state = 13,
       external_lex_state = 4\<rparr>),
     (80, \<lparr>lex_state = 14, external_lex_state = 4\<rparr>), (81, \<lparr>lex_state = 14,
       external_lex_state = 3\<rparr>),
     (82, \<lparr>lex_state = 14, external_lex_state = 3\<rparr>), (83, \<lparr>lex_state = 14,
       external_lex_state = 4\<rparr>),
     (84, \<lparr>lex_state = 14, external_lex_state = 4\<rparr>), (85, \<lparr>lex_state = 14,
       external_lex_state = 4\<rparr>),
     (86, \<lparr>lex_state = 137, external_lex_state = 3\<rparr>), (87, \<lparr>lex_state = 137,
       external_lex_state = 3\<rparr>),
     (88, \<lparr>lex_state = 137, external_lex_state = 3\<rparr>), (89, \<lparr>lex_state = 137,
       external_lex_state = 3\<rparr>),
     (90, \<lparr>lex_state = 137, external_lex_state = 3\<rparr>), (91, \<lparr>lex_state = 137,
       external_lex_state = 3\<rparr>),
     (92, \<lparr>lex_state = 137, external_lex_state = 3\<rparr>), (93, \<lparr>lex_state = 137,
       external_lex_state = 3\<rparr>),
     (94, \<lparr>lex_state = 137, external_lex_state = 3\<rparr>), (95, \<lparr>lex_state = 137,
       external_lex_state = 3\<rparr>),
     (96, \<lparr>lex_state = 137, external_lex_state = 3\<rparr>), (97, \<lparr>lex_state = 137,
       external_lex_state = 3\<rparr>),
     (98, \<lparr>lex_state = 137, external_lex_state = 3\<rparr>), (99, \<lparr>lex_state = 137,
       external_lex_state = 3\<rparr>),
     (100, \<lparr>lex_state = 137, external_lex_state = 3\<rparr>), (101, \<lparr>lex_state =
       16, external_lex_state = 2\<rparr>),
     (102, \<lparr>lex_state = 16, external_lex_state = 2\<rparr>), (103, \<lparr>lex_state = 16,
       external_lex_state = 2\<rparr>),
     (104, \<lparr>lex_state = 16, external_lex_state = 2\<rparr>), (105, \<lparr>lex_state = 16,
       external_lex_state = 2\<rparr>),
     (106, \<lparr>lex_state = 16, external_lex_state = 2\<rparr>), (107, \<lparr>lex_state = 16,
       external_lex_state = 2\<rparr>),
     (108, \<lparr>lex_state = 16, external_lex_state = 2\<rparr>), (109, \<lparr>lex_state = 16,
       external_lex_state = 2\<rparr>),
     (110, \<lparr>lex_state = 16, external_lex_state = 2\<rparr>), (111, \<lparr>lex_state = 16,
       external_lex_state = 2\<rparr>),
     (112, \<lparr>lex_state = 16, external_lex_state = 5\<rparr>), (113, \<lparr>lex_state = 16,
       external_lex_state = 2\<rparr>),
     (114, \<lparr>lex_state = 16, external_lex_state = 2\<rparr>), (115, \<lparr>lex_state = 16,
       external_lex_state = 2\<rparr>),
     (116, \<lparr>lex_state = 16, external_lex_state = 2\<rparr>), (117, \<lparr>lex_state = 16,
       external_lex_state = 2\<rparr>),
     (118, \<lparr>lex_state = 16, external_lex_state = 2\<rparr>), (119, \<lparr>lex_state = 16,
       external_lex_state = 2\<rparr>),
     (120, \<lparr>lex_state = 16, external_lex_state = 2\<rparr>), (121, \<lparr>lex_state = 16,
       external_lex_state = 2\<rparr>),
     (122, \<lparr>lex_state = 16, external_lex_state = 2\<rparr>), (123, \<lparr>lex_state = 16,
       external_lex_state = 2\<rparr>),
     (124, \<lparr>lex_state = 16, external_lex_state = 2\<rparr>), (125, \<lparr>lex_state = 16,
       external_lex_state = 2\<rparr>),
     (126, \<lparr>lex_state = 16, external_lex_state = 2\<rparr>), (127, \<lparr>lex_state = 16,
       external_lex_state = 2\<rparr>),
     (128, \<lparr>lex_state = 16, external_lex_state = 2\<rparr>), (129, \<lparr>lex_state = 13,
       external_lex_state = 3\<rparr>),
     (130, \<lparr>lex_state = 16, external_lex_state = 2\<rparr>), (131, \<lparr>lex_state = 16,
       external_lex_state = 2\<rparr>),
     (132, \<lparr>lex_state = 16, external_lex_state = 2\<rparr>), (133, \<lparr>lex_state = 16,
       external_lex_state = 2\<rparr>),
     (134, \<lparr>lex_state = 13, external_lex_state = 3\<rparr>), (135, \<lparr>lex_state = 13,
       external_lex_state = 3\<rparr>),
     (136, \<lparr>lex_state = 16, external_lex_state = 5\<rparr>), (137, \<lparr>lex_state = 16,
       external_lex_state = 2\<rparr>),
     (138, \<lparr>lex_state = 16, external_lex_state = 2\<rparr>), (139, \<lparr>lex_state = 16,
       external_lex_state = 5\<rparr>),
     (140, \<lparr>lex_state = 16, external_lex_state = 2\<rparr>), (141, \<lparr>lex_state = 16,
       external_lex_state = 2\<rparr>),
     (142, \<lparr>lex_state = 16, external_lex_state = 2\<rparr>), (143, \<lparr>lex_state = 16,
       external_lex_state = 2\<rparr>),
     (144, \<lparr>lex_state = 16, external_lex_state = 2\<rparr>), (145, \<lparr>lex_state = 16,
       external_lex_state = 2\<rparr>),
     (146, \<lparr>lex_state = 16, external_lex_state = 2\<rparr>), (147, \<lparr>lex_state = 16,
       external_lex_state = 2\<rparr>),
     (148, \<lparr>lex_state = 16, external_lex_state = 2\<rparr>), (149, \<lparr>lex_state = 16,
       external_lex_state = 2\<rparr>)]"

definition mozjs_lex_modes_1 :: "(nat \<times> TSLexMode) list" where
  "mozjs_lex_modes_1 =
    [(150, \<lparr>lex_state = 16, external_lex_state = 2\<rparr>), (151, \<lparr>lex_state = 16,
      external_lex_state = 2\<rparr>),
     (152, \<lparr>lex_state = 16, external_lex_state = 2\<rparr>), (153, \<lparr>lex_state = 16,
       external_lex_state = 2\<rparr>),
     (154, \<lparr>lex_state = 16, external_lex_state = 2\<rparr>), (155, \<lparr>lex_state = 16,
       external_lex_state = 2\<rparr>),
     (156, \<lparr>lex_state = 17, external_lex_state = 2\<rparr>), (157, \<lparr>lex_state = 17,
       external_lex_state = 2\<rparr>),
     (158, \<lparr>lex_state = 16, external_lex_state = 2\<rparr>), (159, \<lparr>lex_state = 16,
       external_lex_state = 2\<rparr>),
     (160, \<lparr>lex_state = 16, external_lex_state = 2\<rparr>), (161, \<lparr>lex_state = 16,
       external_lex_state = 2\<rparr>),
     (162, \<lparr>lex_state = 16, external_lex_state = 2\<rparr>), (163, \<lparr>lex_state = 16,
       external_lex_state = 2\<rparr>),
     (164, \<lparr>lex_state = 16, external_lex_state = 2\<rparr>), (165, \<lparr>lex_state = 17,
       external_lex_state = 2\<rparr>),
     (166, \<lparr>lex_state = 16, external_lex_state = 2\<rparr>), (167, \<lparr>lex_state = 16,
       external_lex_state = 2\<rparr>),
     (168, \<lparr>lex_state = 16, external_lex_state = 2\<rparr>), (169, \<lparr>lex_state = 16,
       external_lex_state = 2\<rparr>),
     (170, \<lparr>lex_state = 16, external_lex_state = 2\<rparr>), (171, \<lparr>lex_state = 16,
       external_lex_state = 2\<rparr>),
     (172, \<lparr>lex_state = 13, external_lex_state = 3\<rparr>), (173, \<lparr>lex_state = 16,
       external_lex_state = 2\<rparr>),
     (174, \<lparr>lex_state = 16, external_lex_state = 2\<rparr>), (175, \<lparr>lex_state = 16,
       external_lex_state = 2\<rparr>),
     (176, \<lparr>lex_state = 16, external_lex_state = 2\<rparr>), (177, \<lparr>lex_state = 16,
       external_lex_state = 2\<rparr>),
     (178, \<lparr>lex_state = 16, external_lex_state = 2\<rparr>), (179, \<lparr>lex_state = 16,
       external_lex_state = 2\<rparr>),
     (180, \<lparr>lex_state = 16, external_lex_state = 2\<rparr>), (181, \<lparr>lex_state = 16,
       external_lex_state = 2\<rparr>),
     (182, \<lparr>lex_state = 16, external_lex_state = 2\<rparr>), (183, \<lparr>lex_state = 16,
       external_lex_state = 2\<rparr>),
     (184, \<lparr>lex_state = 16, external_lex_state = 2\<rparr>), (185, \<lparr>lex_state = 16,
       external_lex_state = 2\<rparr>),
     (186, \<lparr>lex_state = 16, external_lex_state = 2\<rparr>), (187, \<lparr>lex_state = 16,
       external_lex_state = 2\<rparr>),
     (188, \<lparr>lex_state = 16, external_lex_state = 2\<rparr>), (189, \<lparr>lex_state = 16,
       external_lex_state = 2\<rparr>),
     (190, \<lparr>lex_state = 16, external_lex_state = 2\<rparr>), (191, \<lparr>lex_state = 16,
       external_lex_state = 2\<rparr>),
     (192, \<lparr>lex_state = 16, external_lex_state = 2\<rparr>), (193, \<lparr>lex_state = 17,
       external_lex_state = 2\<rparr>),
     (194, \<lparr>lex_state = 16, external_lex_state = 2\<rparr>), (195, \<lparr>lex_state = 16,
       external_lex_state = 2\<rparr>),
     (196, \<lparr>lex_state = 16, external_lex_state = 2\<rparr>), (197, \<lparr>lex_state = 16,
       external_lex_state = 2\<rparr>),
     (198, \<lparr>lex_state = 16, external_lex_state = 2\<rparr>), (199, \<lparr>lex_state = 16,
       external_lex_state = 2\<rparr>),
     (200, \<lparr>lex_state = 16, external_lex_state = 2\<rparr>), (201, \<lparr>lex_state = 16,
       external_lex_state = 2\<rparr>),
     (202, \<lparr>lex_state = 13, external_lex_state = 3\<rparr>), (203, \<lparr>lex_state = 16,
       external_lex_state = 2\<rparr>),
     (204, \<lparr>lex_state = 16, external_lex_state = 2\<rparr>), (205, \<lparr>lex_state = 16,
       external_lex_state = 2\<rparr>),
     (206, \<lparr>lex_state = 16, external_lex_state = 2\<rparr>), (207, \<lparr>lex_state = 16,
       external_lex_state = 2\<rparr>),
     (208, \<lparr>lex_state = 16, external_lex_state = 2\<rparr>), (209, \<lparr>lex_state = 16,
       external_lex_state = 2\<rparr>),
     (210, \<lparr>lex_state = 16, external_lex_state = 2\<rparr>), (211, \<lparr>lex_state = 16,
       external_lex_state = 2\<rparr>),
     (212, \<lparr>lex_state = 16, external_lex_state = 2\<rparr>), (213, \<lparr>lex_state = 17,
       external_lex_state = 2\<rparr>),
     (214, \<lparr>lex_state = 16, external_lex_state = 2\<rparr>), (215, \<lparr>lex_state = 16,
       external_lex_state = 2\<rparr>),
     (216, \<lparr>lex_state = 17, external_lex_state = 2\<rparr>), (217, \<lparr>lex_state = 16,
       external_lex_state = 2\<rparr>),
     (218, \<lparr>lex_state = 16, external_lex_state = 2\<rparr>), (219, \<lparr>lex_state = 16,
       external_lex_state = 2\<rparr>),
     (220, \<lparr>lex_state = 16, external_lex_state = 2\<rparr>), (221, \<lparr>lex_state = 16,
       external_lex_state = 2\<rparr>),
     (222, \<lparr>lex_state = 16, external_lex_state = 2\<rparr>), (223, \<lparr>lex_state = 16,
       external_lex_state = 2\<rparr>),
     (224, \<lparr>lex_state = 16, external_lex_state = 2\<rparr>), (225, \<lparr>lex_state = 16,
       external_lex_state = 2\<rparr>),
     (226, \<lparr>lex_state = 16, external_lex_state = 2\<rparr>), (227, \<lparr>lex_state = 16,
       external_lex_state = 2\<rparr>),
     (228, \<lparr>lex_state = 16, external_lex_state = 2\<rparr>), (229, \<lparr>lex_state = 16,
       external_lex_state = 2\<rparr>),
     (230, \<lparr>lex_state = 16, external_lex_state = 2\<rparr>), (231, \<lparr>lex_state = 16,
       external_lex_state = 2\<rparr>),
     (232, \<lparr>lex_state = 16, external_lex_state = 2\<rparr>), (233, \<lparr>lex_state = 16,
       external_lex_state = 2\<rparr>),
     (234, \<lparr>lex_state = 16, external_lex_state = 2\<rparr>), (235, \<lparr>lex_state = 16,
       external_lex_state = 2\<rparr>),
     (236, \<lparr>lex_state = 16, external_lex_state = 2\<rparr>), (237, \<lparr>lex_state = 16,
       external_lex_state = 2\<rparr>),
     (238, \<lparr>lex_state = 16, external_lex_state = 2\<rparr>), (239, \<lparr>lex_state = 16,
       external_lex_state = 2\<rparr>),
     (240, \<lparr>lex_state = 16, external_lex_state = 2\<rparr>), (241, \<lparr>lex_state = 16,
       external_lex_state = 2\<rparr>),
     (242, \<lparr>lex_state = 16, external_lex_state = 2\<rparr>), (243, \<lparr>lex_state = 16,
       external_lex_state = 2\<rparr>),
     (244, \<lparr>lex_state = 16, external_lex_state = 2\<rparr>), (245, \<lparr>lex_state = 16,
       external_lex_state = 2\<rparr>),
     (246, \<lparr>lex_state = 16, external_lex_state = 2\<rparr>), (247, \<lparr>lex_state = 16,
       external_lex_state = 2\<rparr>),
     (248, \<lparr>lex_state = 16, external_lex_state = 2\<rparr>), (249, \<lparr>lex_state = 16,
       external_lex_state = 2\<rparr>),
     (250, \<lparr>lex_state = 16, external_lex_state = 2\<rparr>), (251, \<lparr>lex_state = 16,
       external_lex_state = 2\<rparr>),
     (252, \<lparr>lex_state = 16, external_lex_state = 2\<rparr>), (253, \<lparr>lex_state = 16,
       external_lex_state = 2\<rparr>),
     (254, \<lparr>lex_state = 16, external_lex_state = 2\<rparr>), (255, \<lparr>lex_state = 16,
       external_lex_state = 2\<rparr>),
     (256, \<lparr>lex_state = 16, external_lex_state = 2\<rparr>), (257, \<lparr>lex_state = 16,
       external_lex_state = 2\<rparr>),
     (258, \<lparr>lex_state = 16, external_lex_state = 2\<rparr>), (259, \<lparr>lex_state = 16,
       external_lex_state = 2\<rparr>),
     (260, \<lparr>lex_state = 16, external_lex_state = 2\<rparr>), (261, \<lparr>lex_state = 16,
       external_lex_state = 2\<rparr>),
     (262, \<lparr>lex_state = 16, external_lex_state = 2\<rparr>), (263, \<lparr>lex_state = 16,
       external_lex_state = 2\<rparr>),
     (264, \<lparr>lex_state = 16, external_lex_state = 2\<rparr>), (265, \<lparr>lex_state = 16,
       external_lex_state = 2\<rparr>),
     (266, \<lparr>lex_state = 16, external_lex_state = 2\<rparr>), (267, \<lparr>lex_state = 16,
       external_lex_state = 2\<rparr>),
     (268, \<lparr>lex_state = 16, external_lex_state = 2\<rparr>), (269, \<lparr>lex_state = 16,
       external_lex_state = 2\<rparr>),
     (270, \<lparr>lex_state = 16, external_lex_state = 2\<rparr>), (271, \<lparr>lex_state = 16,
       external_lex_state = 2\<rparr>),
     (272, \<lparr>lex_state = 16, external_lex_state = 2\<rparr>), (273, \<lparr>lex_state = 16,
       external_lex_state = 2\<rparr>),
     (274, \<lparr>lex_state = 16, external_lex_state = 2\<rparr>), (275, \<lparr>lex_state = 16,
       external_lex_state = 2\<rparr>),
     (276, \<lparr>lex_state = 16, external_lex_state = 2\<rparr>), (277, \<lparr>lex_state = 16,
       external_lex_state = 2\<rparr>),
     (278, \<lparr>lex_state = 16, external_lex_state = 2\<rparr>), (279, \<lparr>lex_state = 16,
       external_lex_state = 2\<rparr>),
     (280, \<lparr>lex_state = 16, external_lex_state = 2\<rparr>), (281, \<lparr>lex_state = 16,
       external_lex_state = 2\<rparr>),
     (282, \<lparr>lex_state = 16, external_lex_state = 2\<rparr>), (283, \<lparr>lex_state = 16,
       external_lex_state = 2\<rparr>),
     (284, \<lparr>lex_state = 16, external_lex_state = 2\<rparr>), (285, \<lparr>lex_state = 16,
       external_lex_state = 2\<rparr>),
     (286, \<lparr>lex_state = 16, external_lex_state = 2\<rparr>), (287, \<lparr>lex_state = 16,
       external_lex_state = 2\<rparr>),
     (288, \<lparr>lex_state = 16, external_lex_state = 2\<rparr>), (289, \<lparr>lex_state = 16,
       external_lex_state = 2\<rparr>),
     (290, \<lparr>lex_state = 16, external_lex_state = 2\<rparr>), (291, \<lparr>lex_state = 16,
       external_lex_state = 2\<rparr>),
     (292, \<lparr>lex_state = 16, external_lex_state = 2\<rparr>), (293, \<lparr>lex_state = 16,
       external_lex_state = 2\<rparr>),
     (294, \<lparr>lex_state = 16, external_lex_state = 2\<rparr>), (295, \<lparr>lex_state = 16,
       external_lex_state = 2\<rparr>),
     (296, \<lparr>lex_state = 16, external_lex_state = 2\<rparr>), (297, \<lparr>lex_state = 16,
       external_lex_state = 2\<rparr>),
     (298, \<lparr>lex_state = 16, external_lex_state = 2\<rparr>), (299, \<lparr>lex_state = 16,
       external_lex_state = 2\<rparr>)]"

definition mozjs_lex_modes_2 :: "(nat \<times> TSLexMode) list" where
  "mozjs_lex_modes_2 =
    [(300, \<lparr>lex_state = 16, external_lex_state = 2\<rparr>), (301, \<lparr>lex_state = 16,
      external_lex_state = 2\<rparr>),
     (302, \<lparr>lex_state = 16, external_lex_state = 2\<rparr>), (303, \<lparr>lex_state = 16,
       external_lex_state = 2\<rparr>),
     (304, \<lparr>lex_state = 16, external_lex_state = 2\<rparr>), (305, \<lparr>lex_state = 16,
       external_lex_state = 2\<rparr>),
     (306, \<lparr>lex_state = 16, external_lex_state = 2\<rparr>), (307, \<lparr>lex_state = 16,
       external_lex_state = 2\<rparr>),
     (308, \<lparr>lex_state = 16, external_lex_state = 2\<rparr>), (309, \<lparr>lex_state = 16,
       external_lex_state = 2\<rparr>),
     (310, \<lparr>lex_state = 16, external_lex_state = 2\<rparr>), (311, \<lparr>lex_state = 16,
       external_lex_state = 2\<rparr>),
     (312, \<lparr>lex_state = 16, external_lex_state = 2\<rparr>), (313, \<lparr>lex_state = 16,
       external_lex_state = 2\<rparr>),
     (314, \<lparr>lex_state = 16, external_lex_state = 2\<rparr>), (315, \<lparr>lex_state = 16,
       external_lex_state = 2\<rparr>),
     (316, \<lparr>lex_state = 16, external_lex_state = 2\<rparr>), (317, \<lparr>lex_state = 16,
       external_lex_state = 2\<rparr>),
     (318, \<lparr>lex_state = 16, external_lex_state = 2\<rparr>), (319, \<lparr>lex_state = 16,
       external_lex_state = 2\<rparr>),
     (320, \<lparr>lex_state = 16, external_lex_state = 2\<rparr>), (321, \<lparr>lex_state = 16,
       external_lex_state = 2\<rparr>),
     (322, \<lparr>lex_state = 16, external_lex_state = 2\<rparr>), (323, \<lparr>lex_state = 16,
       external_lex_state = 2\<rparr>),
     (324, \<lparr>lex_state = 16, external_lex_state = 2\<rparr>), (325, \<lparr>lex_state = 16,
       external_lex_state = 2\<rparr>),
     (326, \<lparr>lex_state = 16, external_lex_state = 2\<rparr>), (327, \<lparr>lex_state = 16,
       external_lex_state = 2\<rparr>),
     (328, \<lparr>lex_state = 16, external_lex_state = 2\<rparr>), (329, \<lparr>lex_state = 16,
       external_lex_state = 2\<rparr>),
     (330, \<lparr>lex_state = 16, external_lex_state = 2\<rparr>), (331, \<lparr>lex_state = 16,
       external_lex_state = 2\<rparr>),
     (332, \<lparr>lex_state = 16, external_lex_state = 2\<rparr>), (333, \<lparr>lex_state = 16,
       external_lex_state = 2\<rparr>),
     (334, \<lparr>lex_state = 16, external_lex_state = 2\<rparr>), (335, \<lparr>lex_state = 16,
       external_lex_state = 2\<rparr>),
     (336, \<lparr>lex_state = 16, external_lex_state = 2\<rparr>), (337, \<lparr>lex_state = 16,
       external_lex_state = 2\<rparr>),
     (338, \<lparr>lex_state = 16, external_lex_state = 2\<rparr>), (339, \<lparr>lex_state = 16,
       external_lex_state = 2\<rparr>),
     (340, \<lparr>lex_state = 16, external_lex_state = 2\<rparr>), (341, \<lparr>lex_state = 16,
       external_lex_state = 2\<rparr>),
     (342, \<lparr>lex_state = 16, external_lex_state = 2\<rparr>), (343, \<lparr>lex_state = 16,
       external_lex_state = 2\<rparr>),
     (344, \<lparr>lex_state = 16, external_lex_state = 2\<rparr>), (345, \<lparr>lex_state = 16,
       external_lex_state = 2\<rparr>),
     (346, \<lparr>lex_state = 16, external_lex_state = 2\<rparr>), (347, \<lparr>lex_state = 16,
       external_lex_state = 2\<rparr>),
     (348, \<lparr>lex_state = 16, external_lex_state = 2\<rparr>), (349, \<lparr>lex_state = 16,
       external_lex_state = 2\<rparr>),
     (350, \<lparr>lex_state = 16, external_lex_state = 2\<rparr>), (351, \<lparr>lex_state = 16,
       external_lex_state = 2\<rparr>),
     (352, \<lparr>lex_state = 16, external_lex_state = 2\<rparr>), (353, \<lparr>lex_state = 16,
       external_lex_state = 2\<rparr>),
     (354, \<lparr>lex_state = 16, external_lex_state = 2\<rparr>), (355, \<lparr>lex_state = 16,
       external_lex_state = 2\<rparr>),
     (356, \<lparr>lex_state = 16, external_lex_state = 2\<rparr>), (357, \<lparr>lex_state = 13,
       external_lex_state = 3\<rparr>),
     (358, \<lparr>lex_state = 13, external_lex_state = 3\<rparr>), (359, \<lparr>lex_state = 13,
       external_lex_state = 3\<rparr>),
     (360, \<lparr>lex_state = 13, external_lex_state = 3\<rparr>), (361, \<lparr>lex_state = 13,
       external_lex_state = 3\<rparr>),
     (362, \<lparr>lex_state = 13, external_lex_state = 3\<rparr>), (363, \<lparr>lex_state = 13,
       external_lex_state = 3\<rparr>),
     (364, \<lparr>lex_state = 13, external_lex_state = 3\<rparr>), (365, \<lparr>lex_state = 13,
       external_lex_state = 3\<rparr>),
     (366, \<lparr>lex_state = 13, external_lex_state = 4\<rparr>), (367, \<lparr>lex_state = 13,
       external_lex_state = 4\<rparr>),
     (368, \<lparr>lex_state = 138, external_lex_state = 2\<rparr>), (369, \<lparr>lex_state =
       138, external_lex_state = 5\<rparr>),
     (370, \<lparr>lex_state = 138, external_lex_state = 5\<rparr>), (371, \<lparr>lex_state =
       13, external_lex_state = 3\<rparr>),
     (372, \<lparr>lex_state = 13, external_lex_state = 4\<rparr>), (373, \<lparr>lex_state = 13,
       external_lex_state = 4\<rparr>),
     (374, \<lparr>lex_state = 13, external_lex_state = 3\<rparr>), (375, \<lparr>lex_state = 13,
       external_lex_state = 3\<rparr>),
     (376, \<lparr>lex_state = 13, external_lex_state = 3\<rparr>), (377, \<lparr>lex_state = 13,
       external_lex_state = 3\<rparr>),
     (378, \<lparr>lex_state = 13, external_lex_state = 4\<rparr>), (379, \<lparr>lex_state = 13,
       external_lex_state = 3\<rparr>),
     (380, \<lparr>lex_state = 13, external_lex_state = 3\<rparr>), (381, \<lparr>lex_state = 13,
       external_lex_state = 3\<rparr>),
     (382, \<lparr>lex_state = 13, external_lex_state = 3\<rparr>), (383, \<lparr>lex_state =
       138, external_lex_state = 2\<rparr>),
     (384, \<lparr>lex_state = 138, external_lex_state = 2\<rparr>), (385, \<lparr>lex_state =
       13, external_lex_state = 4\<rparr>),
     (386, \<lparr>lex_state = 13, external_lex_state = 4\<rparr>), (387, \<lparr>lex_state =
       138, external_lex_state = 2\<rparr>),
     (388, \<lparr>lex_state = 138, external_lex_state = 5\<rparr>), (389, \<lparr>lex_state =
       13, external_lex_state = 3\<rparr>),
     (390, \<lparr>lex_state = 138, external_lex_state = 2\<rparr>), (391, \<lparr>lex_state =
       13, external_lex_state = 3\<rparr>),
     (392, \<lparr>lex_state = 13, external_lex_state = 4\<rparr>), (393, \<lparr>lex_state =
       138, external_lex_state = 5\<rparr>),
     (394, \<lparr>lex_state = 138, external_lex_state = 5\<rparr>), (395, \<lparr>lex_state =
       138, external_lex_state = 5\<rparr>),
     (396, \<lparr>lex_state = 138, external_lex_state = 5\<rparr>), (397, \<lparr>lex_state =
       138, external_lex_state = 5\<rparr>),
     (398, \<lparr>lex_state = 138, external_lex_state = 5\<rparr>), (399, \<lparr>lex_state =
       138, external_lex_state = 5\<rparr>),
     (400, \<lparr>lex_state = 138, external_lex_state = 5\<rparr>), (401, \<lparr>lex_state =
       138, external_lex_state = 5\<rparr>),
     (402, \<lparr>lex_state = 138, external_lex_state = 5\<rparr>), (403, \<lparr>lex_state =
       138, external_lex_state = 2\<rparr>),
     (404, \<lparr>lex_state = 138, external_lex_state = 5\<rparr>), (405, \<lparr>lex_state =
       138, external_lex_state = 5\<rparr>),
     (406, \<lparr>lex_state = 138, external_lex_state = 5\<rparr>), (407, \<lparr>lex_state =
       138, external_lex_state = 5\<rparr>),
     (408, \<lparr>lex_state = 138, external_lex_state = 5\<rparr>), (409, \<lparr>lex_state =
       138, external_lex_state = 2\<rparr>),
     (410, \<lparr>lex_state = 138, external_lex_state = 2\<rparr>), (411, \<lparr>lex_state =
       138, external_lex_state = 2\<rparr>),
     (412, \<lparr>lex_state = 138, external_lex_state = 2\<rparr>), (413, \<lparr>lex_state =
       138, external_lex_state = 2\<rparr>),
     (414, \<lparr>lex_state = 138, external_lex_state = 2\<rparr>), (415, \<lparr>lex_state =
       138, external_lex_state = 2\<rparr>),
     (416, \<lparr>lex_state = 138, external_lex_state = 2\<rparr>), (417, \<lparr>lex_state =
       138, external_lex_state = 2\<rparr>),
     (418, \<lparr>lex_state = 138, external_lex_state = 2\<rparr>), (419, \<lparr>lex_state =
       138, external_lex_state = 2\<rparr>),
     (420, \<lparr>lex_state = 138, external_lex_state = 2\<rparr>), (421, \<lparr>lex_state =
       138, external_lex_state = 2\<rparr>),
     (422, \<lparr>lex_state = 138, external_lex_state = 2\<rparr>), (423, \<lparr>lex_state =
       138, external_lex_state = 2\<rparr>),
     (424, \<lparr>lex_state = 138, external_lex_state = 2\<rparr>), (425, \<lparr>lex_state =
       138, external_lex_state = 2\<rparr>),
     (426, \<lparr>lex_state = 138, external_lex_state = 2\<rparr>), (427, \<lparr>lex_state =
       138, external_lex_state = 2\<rparr>),
     (428, \<lparr>lex_state = 138, external_lex_state = 2\<rparr>), (429, \<lparr>lex_state =
       138, external_lex_state = 2\<rparr>),
     (430, \<lparr>lex_state = 138, external_lex_state = 2\<rparr>), (431, \<lparr>lex_state =
       138, external_lex_state = 2\<rparr>),
     (432, \<lparr>lex_state = 138, external_lex_state = 2\<rparr>), (433, \<lparr>lex_state =
       138, external_lex_state = 2\<rparr>),
     (434, \<lparr>lex_state = 138, external_lex_state = 2\<rparr>), (435, \<lparr>lex_state =
       138, external_lex_state = 2\<rparr>),
     (436, \<lparr>lex_state = 138, external_lex_state = 2\<rparr>), (437, \<lparr>lex_state =
       138, external_lex_state = 2\<rparr>),
     (438, \<lparr>lex_state = 138, external_lex_state = 2\<rparr>), (439, \<lparr>lex_state =
       138, external_lex_state = 2\<rparr>),
     (440, \<lparr>lex_state = 13, external_lex_state = 4\<rparr>), (441, \<lparr>lex_state =
       138, external_lex_state = 2\<rparr>),
     (442, \<lparr>lex_state = 138, external_lex_state = 2\<rparr>), (443, \<lparr>lex_state =
       138, external_lex_state = 2\<rparr>),
     (444, \<lparr>lex_state = 13, external_lex_state = 4\<rparr>), (445, \<lparr>lex_state =
       138, external_lex_state = 2\<rparr>),
     (446, \<lparr>lex_state = 138, external_lex_state = 2\<rparr>), (447, \<lparr>lex_state =
       138, external_lex_state = 2\<rparr>),
     (448, \<lparr>lex_state = 138, external_lex_state = 2\<rparr>), (449, \<lparr>lex_state =
       138, external_lex_state = 2\<rparr>)]"

definition mozjs_lex_modes_3 :: "(nat \<times> TSLexMode) list" where
  "mozjs_lex_modes_3 =
    [(450, \<lparr>lex_state = 138, external_lex_state = 2\<rparr>), (451, \<lparr>lex_state =
      138, external_lex_state = 2\<rparr>),
     (452, \<lparr>lex_state = 138, external_lex_state = 2\<rparr>), (453, \<lparr>lex_state =
       13, external_lex_state = 3\<rparr>),
     (454, \<lparr>lex_state = 138, external_lex_state = 2\<rparr>), (455, \<lparr>lex_state =
       138, external_lex_state = 2\<rparr>),
     (456, \<lparr>lex_state = 138, external_lex_state = 2\<rparr>), (457, \<lparr>lex_state =
       138, external_lex_state = 2\<rparr>),
     (458, \<lparr>lex_state = 13, external_lex_state = 3\<rparr>), (459, \<lparr>lex_state =
       138, external_lex_state = 2\<rparr>),
     (460, \<lparr>lex_state = 138, external_lex_state = 2\<rparr>), (461, \<lparr>lex_state =
       138, external_lex_state = 2\<rparr>),
     (462, \<lparr>lex_state = 138, external_lex_state = 2\<rparr>), (463, \<lparr>lex_state =
       138, external_lex_state = 2\<rparr>),
     (464, \<lparr>lex_state = 138, external_lex_state = 2\<rparr>), (465, \<lparr>lex_state =
       138, external_lex_state = 2\<rparr>),
     (466, \<lparr>lex_state = 138, external_lex_state = 2\<rparr>), (467, \<lparr>lex_state =
       138, external_lex_state = 2\<rparr>),
     (468, \<lparr>lex_state = 138, external_lex_state = 2\<rparr>), (469, \<lparr>lex_state =
       138, external_lex_state = 2\<rparr>),
     (470, \<lparr>lex_state = 138, external_lex_state = 2\<rparr>), (471, \<lparr>lex_state =
       138, external_lex_state = 2\<rparr>),
     (472, \<lparr>lex_state = 138, external_lex_state = 2\<rparr>), (473, \<lparr>lex_state =
       138, external_lex_state = 2\<rparr>),
     (474, \<lparr>lex_state = 138, external_lex_state = 2\<rparr>), (475, \<lparr>lex_state =
       138, external_lex_state = 2\<rparr>),
     (476, \<lparr>lex_state = 138, external_lex_state = 2\<rparr>), (477, \<lparr>lex_state =
       138, external_lex_state = 2\<rparr>),
     (478, \<lparr>lex_state = 138, external_lex_state = 2\<rparr>), (479, \<lparr>lex_state =
       138, external_lex_state = 2\<rparr>),
     (480, \<lparr>lex_state = 138, external_lex_state = 2\<rparr>), (481, \<lparr>lex_state =
       138, external_lex_state = 2\<rparr>),
     (482, \<lparr>lex_state = 13, external_lex_state = 4\<rparr>), (483, \<lparr>lex_state = 13,
       external_lex_state = 4\<rparr>),
     (484, \<lparr>lex_state = 13, external_lex_state = 4\<rparr>), (485, \<lparr>lex_state =
       138, external_lex_state = 2\<rparr>),
     (486, \<lparr>lex_state = 13, external_lex_state = 4\<rparr>), (487, \<lparr>lex_state =
       138, external_lex_state = 2\<rparr>),
     (488, \<lparr>lex_state = 13, external_lex_state = 4\<rparr>), (489, \<lparr>lex_state = 13,
       external_lex_state = 3\<rparr>),
     (490, \<lparr>lex_state = 13, external_lex_state = 4\<rparr>), (491, \<lparr>lex_state = 13,
       external_lex_state = 3\<rparr>),
     (492, \<lparr>lex_state = 13, external_lex_state = 4\<rparr>), (493, \<lparr>lex_state = 13,
       external_lex_state = 4\<rparr>),
     (494, \<lparr>lex_state = 13, external_lex_state = 4\<rparr>), (495, \<lparr>lex_state = 13,
       external_lex_state = 4\<rparr>),
     (496, \<lparr>lex_state = 13, external_lex_state = 3\<rparr>), (497, \<lparr>lex_state = 13,
       external_lex_state = 4\<rparr>),
     (498, \<lparr>lex_state = 13, external_lex_state = 4\<rparr>), (499, \<lparr>lex_state = 13,
       external_lex_state = 4\<rparr>),
     (500, \<lparr>lex_state = 13, external_lex_state = 3\<rparr>), (501, \<lparr>lex_state =
       138, external_lex_state = 2\<rparr>),
     (502, \<lparr>lex_state = 13, external_lex_state = 4\<rparr>), (503, \<lparr>lex_state = 13,
       external_lex_state = 4\<rparr>),
     (504, \<lparr>lex_state = 13, external_lex_state = 4\<rparr>), (505, \<lparr>lex_state =
       138, external_lex_state = 2\<rparr>),
     (506, \<lparr>lex_state = 13, external_lex_state = 4\<rparr>), (507, \<lparr>lex_state =
       138, external_lex_state = 2\<rparr>),
     (508, \<lparr>lex_state = 138, external_lex_state = 2\<rparr>), (509, \<lparr>lex_state =
       138, external_lex_state = 2\<rparr>),
     (510, \<lparr>lex_state = 138, external_lex_state = 2\<rparr>), (511, \<lparr>lex_state =
       13, external_lex_state = 4\<rparr>),
     (512, \<lparr>lex_state = 138, external_lex_state = 2\<rparr>), (513, \<lparr>lex_state =
       138, external_lex_state = 2\<rparr>),
     (514, \<lparr>lex_state = 138, external_lex_state = 2\<rparr>), (515, \<lparr>lex_state =
       138, external_lex_state = 2\<rparr>),
     (516, \<lparr>lex_state = 138, external_lex_state = 2\<rparr>), (517, \<lparr>lex_state =
       138, external_lex_state = 2\<rparr>),
     (518, \<lparr>lex_state = 138, external_lex_state = 2\<rparr>), (519, \<lparr>lex_state =
       138, external_lex_state = 2\<rparr>),
     (520, \<lparr>lex_state = 138, external_lex_state = 2\<rparr>), (521, \<lparr>lex_state =
       138, external_lex_state = 2\<rparr>),
     (522, \<lparr>lex_state = 138, external_lex_state = 2\<rparr>), (523, \<lparr>lex_state =
       138, external_lex_state = 2\<rparr>),
     (524, \<lparr>lex_state = 138, external_lex_state = 2\<rparr>), (525, \<lparr>lex_state =
       13, external_lex_state = 4\<rparr>),
     (526, \<lparr>lex_state = 13, external_lex_state = 3\<rparr>), (527, \<lparr>lex_state = 13,
       external_lex_state = 3\<rparr>),
     (528, \<lparr>lex_state = 13, external_lex_state = 4\<rparr>), (529, \<lparr>lex_state = 13,
       external_lex_state = 3\<rparr>),
     (530, \<lparr>lex_state = 13, external_lex_state = 3\<rparr>), (531, \<lparr>lex_state = 13,
       external_lex_state = 3\<rparr>),
     (532, \<lparr>lex_state = 13, external_lex_state = 3\<rparr>), (533, \<lparr>lex_state = 13,
       external_lex_state = 3\<rparr>),
     (534, \<lparr>lex_state = 13, external_lex_state = 3\<rparr>), (535, \<lparr>lex_state = 13,
       external_lex_state = 3\<rparr>),
     (536, \<lparr>lex_state = 13, external_lex_state = 3\<rparr>), (537, \<lparr>lex_state = 13,
       external_lex_state = 3\<rparr>),
     (538, \<lparr>lex_state = 13, external_lex_state = 4\<rparr>), (539, \<lparr>lex_state = 13,
       external_lex_state = 3\<rparr>),
     (540, \<lparr>lex_state = 13, external_lex_state = 4\<rparr>), (541, \<lparr>lex_state = 13,
       external_lex_state = 3\<rparr>),
     (542, \<lparr>lex_state = 13, external_lex_state = 4\<rparr>), (543, \<lparr>lex_state = 13,
       external_lex_state = 3\<rparr>),
     (544, \<lparr>lex_state = 13, external_lex_state = 3\<rparr>), (545, \<lparr>lex_state = 13,
       external_lex_state = 3\<rparr>),
     (546, \<lparr>lex_state = 13, external_lex_state = 3\<rparr>), (547, \<lparr>lex_state = 13,
       external_lex_state = 4\<rparr>),
     (548, \<lparr>lex_state = 13, external_lex_state = 3\<rparr>), (549, \<lparr>lex_state = 13,
       external_lex_state = 4\<rparr>),
     (550, \<lparr>lex_state = 13, external_lex_state = 3\<rparr>), (551, \<lparr>lex_state = 13,
       external_lex_state = 3\<rparr>),
     (552, \<lparr>lex_state = 13, external_lex_state = 4\<rparr>), (553, \<lparr>lex_state = 13,
       external_lex_state = 4\<rparr>),
     (554, \<lparr>lex_state = 13, external_lex_state = 4\<rparr>), (555, \<lparr>lex_state = 13,
       external_lex_state = 4\<rparr>),
     (556, \<lparr>lex_state = 13, external_lex_state = 3\<rparr>), (557, \<lparr>lex_state = 13,
       external_lex_state = 4\<rparr>),
     (558, \<lparr>lex_state = 13, external_lex_state = 4\<rparr>), (559, \<lparr>lex_state = 13,
       external_lex_state = 3\<rparr>),
     (560, \<lparr>lex_state = 13, external_lex_state = 4\<rparr>), (561, \<lparr>lex_state = 13,
       external_lex_state = 4\<rparr>),
     (562, \<lparr>lex_state = 13, external_lex_state = 4\<rparr>), (563, \<lparr>lex_state = 13,
       external_lex_state = 4\<rparr>),
     (564, \<lparr>lex_state = 13, external_lex_state = 4\<rparr>), (565, \<lparr>lex_state = 13,
       external_lex_state = 4\<rparr>),
     (566, \<lparr>lex_state = 13, external_lex_state = 4\<rparr>), (567, \<lparr>lex_state = 13,
       external_lex_state = 4\<rparr>),
     (568, \<lparr>lex_state = 13, external_lex_state = 4\<rparr>), (569, \<lparr>lex_state = 13,
       external_lex_state = 4\<rparr>),
     (570, \<lparr>lex_state = 13, external_lex_state = 4\<rparr>), (571, \<lparr>lex_state = 13,
       external_lex_state = 4\<rparr>),
     (572, \<lparr>lex_state = 13, external_lex_state = 4\<rparr>), (573, \<lparr>lex_state = 13,
       external_lex_state = 4\<rparr>),
     (574, \<lparr>lex_state = 13, external_lex_state = 4\<rparr>), (575, \<lparr>lex_state = 13,
       external_lex_state = 4\<rparr>),
     (576, \<lparr>lex_state = 13, external_lex_state = 4\<rparr>), (577, \<lparr>lex_state = 13,
       external_lex_state = 4\<rparr>),
     (578, \<lparr>lex_state = 13, external_lex_state = 4\<rparr>), (579, \<lparr>lex_state = 13,
       external_lex_state = 4\<rparr>),
     (580, \<lparr>lex_state = 13, external_lex_state = 4\<rparr>), (581, \<lparr>lex_state = 14,
       external_lex_state = 3\<rparr>),
     (582, \<lparr>lex_state = 14, external_lex_state = 4\<rparr>), (583, \<lparr>lex_state = 14,
       external_lex_state = 4\<rparr>),
     (584, \<lparr>lex_state = 14, external_lex_state = 4\<rparr>), (585, \<lparr>lex_state = 14,
       external_lex_state = 4\<rparr>),
     (586, \<lparr>lex_state = 14, external_lex_state = 4\<rparr>), (587, \<lparr>lex_state = 14,
       external_lex_state = 4\<rparr>),
     (588, \<lparr>lex_state = 14, external_lex_state = 3\<rparr>), (589, \<lparr>lex_state = 14,
       external_lex_state = 4\<rparr>),
     (590, \<lparr>lex_state = 14, external_lex_state = 3\<rparr>), (591, \<lparr>lex_state = 14,
       external_lex_state = 4\<rparr>),
     (592, \<lparr>lex_state = 14, external_lex_state = 4\<rparr>), (593, \<lparr>lex_state = 14,
       external_lex_state = 4\<rparr>),
     (594, \<lparr>lex_state = 14, external_lex_state = 4\<rparr>), (595, \<lparr>lex_state = 14,
       external_lex_state = 4\<rparr>),
     (596, \<lparr>lex_state = 14, external_lex_state = 4\<rparr>), (597, \<lparr>lex_state = 14,
       external_lex_state = 4\<rparr>),
     (598, \<lparr>lex_state = 14, external_lex_state = 4\<rparr>), (599, \<lparr>lex_state = 14,
       external_lex_state = 4\<rparr>)]"

definition mozjs_lex_modes_4 :: "(nat \<times> TSLexMode) list" where
  "mozjs_lex_modes_4 =
    [(600, \<lparr>lex_state = 14, external_lex_state = 4\<rparr>), (601, \<lparr>lex_state = 14,
      external_lex_state = 4\<rparr>),
     (602, \<lparr>lex_state = 14, external_lex_state = 4\<rparr>), (603, \<lparr>lex_state = 14,
       external_lex_state = 4\<rparr>),
     (604, \<lparr>lex_state = 14, external_lex_state = 4\<rparr>), (605, \<lparr>lex_state = 14,
       external_lex_state = 4\<rparr>),
     (606, \<lparr>lex_state = 14, external_lex_state = 4\<rparr>), (607, \<lparr>lex_state = 14,
       external_lex_state = 4\<rparr>),
     (608, \<lparr>lex_state = 14, external_lex_state = 4\<rparr>), (609, \<lparr>lex_state = 14,
       external_lex_state = 4\<rparr>),
     (610, \<lparr>lex_state = 14, external_lex_state = 4\<rparr>), (611, \<lparr>lex_state = 14,
       external_lex_state = 4\<rparr>),
     (612, \<lparr>lex_state = 14, external_lex_state = 4\<rparr>), (613, \<lparr>lex_state = 14,
       external_lex_state = 4\<rparr>),
     (614, \<lparr>lex_state = 14, external_lex_state = 4\<rparr>), (615, \<lparr>lex_state = 14,
       external_lex_state = 4\<rparr>),
     (616, \<lparr>lex_state = 14, external_lex_state = 4\<rparr>), (617, \<lparr>lex_state = 14,
       external_lex_state = 4\<rparr>),
     (618, \<lparr>lex_state = 14, external_lex_state = 4\<rparr>), (619, \<lparr>lex_state = 14,
       external_lex_state = 4\<rparr>),
     (620, \<lparr>lex_state = 14, external_lex_state = 4\<rparr>), (621, \<lparr>lex_state = 14,
       external_lex_state = 4\<rparr>),
     (622, \<lparr>lex_state = 14, external_lex_state = 4\<rparr>), (623, \<lparr>lex_state = 18,
       external_lex_state = 4\<rparr>),
     (624, \<lparr>lex_state = 14, external_lex_state = 4\<rparr>), (625, \<lparr>lex_state = 14,
       external_lex_state = 4\<rparr>),
     (626, \<lparr>lex_state = 14, external_lex_state = 4\<rparr>), (627, \<lparr>lex_state = 14,
       external_lex_state = 4\<rparr>),
     (628, \<lparr>lex_state = 14, external_lex_state = 4\<rparr>), (629, \<lparr>lex_state = 14,
       external_lex_state = 4\<rparr>),
     (630, \<lparr>lex_state = 14, external_lex_state = 4\<rparr>), (631, \<lparr>lex_state = 14,
       external_lex_state = 4\<rparr>),
     (632, \<lparr>lex_state = 14, external_lex_state = 4\<rparr>), (633, \<lparr>lex_state = 14,
       external_lex_state = 4\<rparr>),
     (634, \<lparr>lex_state = 14, external_lex_state = 4\<rparr>), (635, \<lparr>lex_state = 14,
       external_lex_state = 4\<rparr>),
     (636, \<lparr>lex_state = 14, external_lex_state = 4\<rparr>), (637, \<lparr>lex_state = 14,
       external_lex_state = 4\<rparr>),
     (638, \<lparr>lex_state = 14, external_lex_state = 4\<rparr>), (639, \<lparr>lex_state = 14,
       external_lex_state = 4\<rparr>),
     (640, \<lparr>lex_state = 14, external_lex_state = 4\<rparr>), (641, \<lparr>lex_state = 14,
       external_lex_state = 4\<rparr>),
     (642, \<lparr>lex_state = 16, external_lex_state = 2\<rparr>), (643, \<lparr>lex_state = 14,
       external_lex_state = 4\<rparr>),
     (644, \<lparr>lex_state = 14, external_lex_state = 4\<rparr>), (645, \<lparr>lex_state = 14,
       external_lex_state = 4\<rparr>),
     (646, \<lparr>lex_state = 14, external_lex_state = 4\<rparr>), (647, \<lparr>lex_state = 14,
       external_lex_state = 4\<rparr>),
     (648, \<lparr>lex_state = 14, external_lex_state = 4\<rparr>), (649, \<lparr>lex_state = 14,
       external_lex_state = 4\<rparr>),
     (650, \<lparr>lex_state = 14, external_lex_state = 4\<rparr>), (651, \<lparr>lex_state = 14,
       external_lex_state = 4\<rparr>),
     (652, \<lparr>lex_state = 14, external_lex_state = 4\<rparr>), (653, \<lparr>lex_state = 14,
       external_lex_state = 4\<rparr>),
     (654, \<lparr>lex_state = 16, external_lex_state = 2\<rparr>), (655, \<lparr>lex_state = 14,
       external_lex_state = 4\<rparr>),
     (656, \<lparr>lex_state = 16, external_lex_state = 2\<rparr>), (657, \<lparr>lex_state = 14,
       external_lex_state = 4\<rparr>),
     (658, \<lparr>lex_state = 14, external_lex_state = 4\<rparr>), (659, \<lparr>lex_state = 14,
       external_lex_state = 4\<rparr>),
     (660, \<lparr>lex_state = 14, external_lex_state = 4\<rparr>), (661, \<lparr>lex_state = 14,
       external_lex_state = 4\<rparr>),
     (662, \<lparr>lex_state = 14, external_lex_state = 4\<rparr>), (663, \<lparr>lex_state = 14,
       external_lex_state = 4\<rparr>),
     (664, \<lparr>lex_state = 14, external_lex_state = 4\<rparr>), (665, \<lparr>lex_state = 14,
       external_lex_state = 4\<rparr>),
     (666, \<lparr>lex_state = 14, external_lex_state = 4\<rparr>), (667, \<lparr>lex_state = 14,
       external_lex_state = 4\<rparr>),
     (668, \<lparr>lex_state = 14, external_lex_state = 4\<rparr>), (669, \<lparr>lex_state = 16,
       external_lex_state = 2\<rparr>),
     (670, \<lparr>lex_state = 14, external_lex_state = 4\<rparr>), (671, \<lparr>lex_state = 14,
       external_lex_state = 3\<rparr>),
     (672, \<lparr>lex_state = 14, external_lex_state = 4\<rparr>), (673, \<lparr>lex_state = 14,
       external_lex_state = 4\<rparr>),
     (674, \<lparr>lex_state = 14, external_lex_state = 4\<rparr>), (675, \<lparr>lex_state = 14,
       external_lex_state = 4\<rparr>),
     (676, \<lparr>lex_state = 14, external_lex_state = 4\<rparr>), (677, \<lparr>lex_state = 14,
       external_lex_state = 4\<rparr>),
     (678, \<lparr>lex_state = 14, external_lex_state = 4\<rparr>), (679, \<lparr>lex_state = 14,
       external_lex_state = 4\<rparr>),
     (680, \<lparr>lex_state = 16, external_lex_state = 2\<rparr>), (681, \<lparr>lex_state = 14,
       external_lex_state = 4\<rparr>),
     (682, \<lparr>lex_state = 14, external_lex_state = 3\<rparr>), (683, \<lparr>lex_state = 14,
       external_lex_state = 4\<rparr>),
     (684, \<lparr>lex_state = 14, external_lex_state = 4\<rparr>), (685, \<lparr>lex_state = 14,
       external_lex_state = 4\<rparr>),
     (686, \<lparr>lex_state = 14, external_lex_state = 4\<rparr>), (687, \<lparr>lex_state = 14,
       external_lex_state = 3\<rparr>),
     (688, \<lparr>lex_state = 14, external_lex_state = 3\<rparr>), (689, \<lparr>lex_state = 14,
       external_lex_state = 3\<rparr>),
     (690, \<lparr>lex_state = 14, external_lex_state = 4\<rparr>), (691, \<lparr>lex_state = 14,
       external_lex_state = 3\<rparr>),
     (692, \<lparr>lex_state = 14, external_lex_state = 3\<rparr>), (693, \<lparr>lex_state = 14,
       external_lex_state = 3\<rparr>),
     (694, \<lparr>lex_state = 14, external_lex_state = 3\<rparr>), (695, \<lparr>lex_state = 14,
       external_lex_state = 3\<rparr>),
     (696, \<lparr>lex_state = 14, external_lex_state = 3\<rparr>), (697, \<lparr>lex_state = 14,
       external_lex_state = 3\<rparr>),
     (698, \<lparr>lex_state = 14, external_lex_state = 3\<rparr>), (699, \<lparr>lex_state = 14,
       external_lex_state = 3\<rparr>),
     (700, \<lparr>lex_state = 14, external_lex_state = 3\<rparr>), (701, \<lparr>lex_state = 14,
       external_lex_state = 3\<rparr>),
     (702, \<lparr>lex_state = 14, external_lex_state = 3\<rparr>), (703, \<lparr>lex_state = 14,
       external_lex_state = 3\<rparr>),
     (704, \<lparr>lex_state = 14, external_lex_state = 3\<rparr>), (705, \<lparr>lex_state = 14,
       external_lex_state = 3\<rparr>),
     (706, \<lparr>lex_state = 18, external_lex_state = 3\<rparr>), (707, \<lparr>lex_state = 14,
       external_lex_state = 3\<rparr>),
     (708, \<lparr>lex_state = 14, external_lex_state = 3\<rparr>), (709, \<lparr>lex_state = 14,
       external_lex_state = 3\<rparr>),
     (710, \<lparr>lex_state = 14, external_lex_state = 3\<rparr>), (711, \<lparr>lex_state = 14,
       external_lex_state = 3\<rparr>),
     (712, \<lparr>lex_state = 14, external_lex_state = 3\<rparr>), (713, \<lparr>lex_state = 14,
       external_lex_state = 3\<rparr>),
     (714, \<lparr>lex_state = 14, external_lex_state = 3\<rparr>), (715, \<lparr>lex_state = 14,
       external_lex_state = 3\<rparr>),
     (716, \<lparr>lex_state = 14, external_lex_state = 3\<rparr>), (717, \<lparr>lex_state = 14,
       external_lex_state = 3\<rparr>),
     (718, \<lparr>lex_state = 14, external_lex_state = 3\<rparr>), (719, \<lparr>lex_state = 14,
       external_lex_state = 3\<rparr>),
     (720, \<lparr>lex_state = 14, external_lex_state = 3\<rparr>), (721, \<lparr>lex_state = 14,
       external_lex_state = 3\<rparr>),
     (722, \<lparr>lex_state = 14, external_lex_state = 3\<rparr>), (723, \<lparr>lex_state = 14,
       external_lex_state = 3\<rparr>),
     (724, \<lparr>lex_state = 14, external_lex_state = 3\<rparr>), (725, \<lparr>lex_state = 14,
       external_lex_state = 3\<rparr>),
     (726, \<lparr>lex_state = 14, external_lex_state = 3\<rparr>), (727, \<lparr>lex_state = 14,
       external_lex_state = 3\<rparr>),
     (728, \<lparr>lex_state = 14, external_lex_state = 3\<rparr>), (729, \<lparr>lex_state = 14,
       external_lex_state = 3\<rparr>),
     (730, \<lparr>lex_state = 14, external_lex_state = 3\<rparr>), (731, \<lparr>lex_state = 14,
       external_lex_state = 3\<rparr>),
     (732, \<lparr>lex_state = 14, external_lex_state = 3\<rparr>), (733, \<lparr>lex_state = 14,
       external_lex_state = 3\<rparr>),
     (734, \<lparr>lex_state = 14, external_lex_state = 3\<rparr>), (735, \<lparr>lex_state = 14,
       external_lex_state = 3\<rparr>),
     (736, \<lparr>lex_state = 14, external_lex_state = 3\<rparr>), (737, \<lparr>lex_state = 14,
       external_lex_state = 3\<rparr>),
     (738, \<lparr>lex_state = 14, external_lex_state = 3\<rparr>), (739, \<lparr>lex_state = 14,
       external_lex_state = 3\<rparr>),
     (740, \<lparr>lex_state = 14, external_lex_state = 3\<rparr>), (741, \<lparr>lex_state = 14,
       external_lex_state = 4\<rparr>),
     (742, \<lparr>lex_state = 14, external_lex_state = 3\<rparr>), (743, \<lparr>lex_state = 14,
       external_lex_state = 3\<rparr>),
     (744, \<lparr>lex_state = 14, external_lex_state = 3\<rparr>), (745, \<lparr>lex_state = 14,
       external_lex_state = 3\<rparr>),
     (746, \<lparr>lex_state = 14, external_lex_state = 3\<rparr>), (747, \<lparr>lex_state = 14,
       external_lex_state = 3\<rparr>),
     (748, \<lparr>lex_state = 14, external_lex_state = 3\<rparr>), (749, \<lparr>lex_state = 14,
       external_lex_state = 3\<rparr>)]"

definition mozjs_lex_modes_5 :: "(nat \<times> TSLexMode) list" where
  "mozjs_lex_modes_5 =
    [(750, \<lparr>lex_state = 14, external_lex_state = 3\<rparr>), (751, \<lparr>lex_state = 14,
      external_lex_state = 4\<rparr>),
     (752, \<lparr>lex_state = 14, external_lex_state = 3\<rparr>), (753, \<lparr>lex_state = 14,
       external_lex_state = 3\<rparr>),
     (754, \<lparr>lex_state = 14, external_lex_state = 3\<rparr>), (755, \<lparr>lex_state = 14,
       external_lex_state = 3\<rparr>),
     (756, \<lparr>lex_state = 14, external_lex_state = 3\<rparr>), (757, \<lparr>lex_state = 14,
       external_lex_state = 3\<rparr>),
     (758, \<lparr>lex_state = 18, external_lex_state = 3\<rparr>), (759, \<lparr>lex_state = 14,
       external_lex_state = 3\<rparr>),
     (760, \<lparr>lex_state = 14, external_lex_state = 3\<rparr>), (761, \<lparr>lex_state = 14,
       external_lex_state = 3\<rparr>),
     (762, \<lparr>lex_state = 14, external_lex_state = 3\<rparr>), (763, \<lparr>lex_state = 14,
       external_lex_state = 3\<rparr>),
     (764, \<lparr>lex_state = 14, external_lex_state = 4\<rparr>), (765, \<lparr>lex_state = 14,
       external_lex_state = 3\<rparr>),
     (766, \<lparr>lex_state = 14, external_lex_state = 4\<rparr>), (767, \<lparr>lex_state = 14,
       external_lex_state = 4\<rparr>),
     (768, \<lparr>lex_state = 14, external_lex_state = 3\<rparr>), (769, \<lparr>lex_state = 14,
       external_lex_state = 3\<rparr>),
     (770, \<lparr>lex_state = 14, external_lex_state = 3\<rparr>), (771, \<lparr>lex_state = 14,
       external_lex_state = 3\<rparr>),
     (772, \<lparr>lex_state = 14, external_lex_state = 3\<rparr>), (773, \<lparr>lex_state = 14,
       external_lex_state = 3\<rparr>),
     (774, \<lparr>lex_state = 14, external_lex_state = 3\<rparr>), (775, \<lparr>lex_state = 14,
       external_lex_state = 3\<rparr>),
     (776, \<lparr>lex_state = 14, external_lex_state = 3\<rparr>), (777, \<lparr>lex_state = 14,
       external_lex_state = 3\<rparr>),
     (778, \<lparr>lex_state = 14, external_lex_state = 3\<rparr>), (779, \<lparr>lex_state = 14,
       external_lex_state = 3\<rparr>),
     (780, \<lparr>lex_state = 14, external_lex_state = 3\<rparr>), (781, \<lparr>lex_state = 14,
       external_lex_state = 3\<rparr>),
     (782, \<lparr>lex_state = 14, external_lex_state = 3\<rparr>), (783, \<lparr>lex_state = 14,
       external_lex_state = 3\<rparr>),
     (784, \<lparr>lex_state = 14, external_lex_state = 4\<rparr>), (785, \<lparr>lex_state = 14,
       external_lex_state = 3\<rparr>),
     (786, \<lparr>lex_state = 14, external_lex_state = 3\<rparr>), (787, \<lparr>lex_state = 14,
       external_lex_state = 3\<rparr>),
     (788, \<lparr>lex_state = 14, external_lex_state = 3\<rparr>), (789, \<lparr>lex_state = 14,
       external_lex_state = 3\<rparr>),
     (790, \<lparr>lex_state = 14, external_lex_state = 3\<rparr>), (791, \<lparr>lex_state = 14,
       external_lex_state = 3\<rparr>),
     (792, \<lparr>lex_state = 14, external_lex_state = 3\<rparr>), (793, \<lparr>lex_state = 14,
       external_lex_state = 3\<rparr>),
     (794, \<lparr>lex_state = 14, external_lex_state = 3\<rparr>), (795, \<lparr>lex_state = 14,
       external_lex_state = 3\<rparr>),
     (796, \<lparr>lex_state = 14, external_lex_state = 3\<rparr>), (797, \<lparr>lex_state = 14,
       external_lex_state = 3\<rparr>),
     (798, \<lparr>lex_state = 14, external_lex_state = 3\<rparr>), (799, \<lparr>lex_state = 14,
       external_lex_state = 3\<rparr>),
     (800, \<lparr>lex_state = 14, external_lex_state = 3\<rparr>), (801, \<lparr>lex_state = 14,
       external_lex_state = 3\<rparr>),
     (802, \<lparr>lex_state = 14, external_lex_state = 3\<rparr>), (803, \<lparr>lex_state = 14,
       external_lex_state = 3\<rparr>),
     (804, \<lparr>lex_state = 14, external_lex_state = 3\<rparr>), (805, \<lparr>lex_state = 14,
       external_lex_state = 3\<rparr>),
     (806, \<lparr>lex_state = 14, external_lex_state = 3\<rparr>), (807, \<lparr>lex_state = 14,
       external_lex_state = 3\<rparr>),
     (808, \<lparr>lex_state = 14, external_lex_state = 3\<rparr>), (809, \<lparr>lex_state = 14,
       external_lex_state = 3\<rparr>),
     (810, \<lparr>lex_state = 14, external_lex_state = 3\<rparr>), (811, \<lparr>lex_state = 14,
       external_lex_state = 3\<rparr>),
     (812, \<lparr>lex_state = 14, external_lex_state = 3\<rparr>), (813, \<lparr>lex_state = 14,
       external_lex_state = 3\<rparr>),
     (814, \<lparr>lex_state = 14, external_lex_state = 3\<rparr>), (815, \<lparr>lex_state = 14,
       external_lex_state = 3\<rparr>),
     (816, \<lparr>lex_state = 14, external_lex_state = 3\<rparr>), (817, \<lparr>lex_state = 14,
       external_lex_state = 4\<rparr>),
     (818, \<lparr>lex_state = 14, external_lex_state = 3\<rparr>), (819, \<lparr>lex_state = 14,
       external_lex_state = 4\<rparr>),
     (820, \<lparr>lex_state = 14, external_lex_state = 4\<rparr>), (821, \<lparr>lex_state = 14,
       external_lex_state = 3\<rparr>),
     (822, \<lparr>lex_state = 14, external_lex_state = 3\<rparr>), (823, \<lparr>lex_state = 14,
       external_lex_state = 3\<rparr>),
     (824, \<lparr>lex_state = 14, external_lex_state = 3\<rparr>), (825, \<lparr>lex_state = 14,
       external_lex_state = 4\<rparr>),
     (826, \<lparr>lex_state = 14, external_lex_state = 3\<rparr>), (827, \<lparr>lex_state = 14,
       external_lex_state = 4\<rparr>),
     (828, \<lparr>lex_state = 14, external_lex_state = 4\<rparr>), (829, \<lparr>lex_state = 14,
       external_lex_state = 3\<rparr>),
     (830, \<lparr>lex_state = 14, external_lex_state = 3\<rparr>), (831, \<lparr>lex_state = 14,
       external_lex_state = 4\<rparr>),
     (832, \<lparr>lex_state = 14, external_lex_state = 3\<rparr>), (833, \<lparr>lex_state = 20,
       external_lex_state = 2\<rparr>),
     (834, \<lparr>lex_state = 14, external_lex_state = 4\<rparr>), (835, \<lparr>lex_state = 14,
       external_lex_state = 4\<rparr>),
     (836, \<lparr>lex_state = 14, external_lex_state = 4\<rparr>), (837, \<lparr>lex_state = 14,
       external_lex_state = 4\<rparr>),
     (838, \<lparr>lex_state = 14, external_lex_state = 4\<rparr>), (839, \<lparr>lex_state = 14,
       external_lex_state = 4\<rparr>),
     (840, \<lparr>lex_state = 14, external_lex_state = 4\<rparr>), (841, \<lparr>lex_state = 14,
       external_lex_state = 4\<rparr>),
     (842, \<lparr>lex_state = 14, external_lex_state = 4\<rparr>), (843, \<lparr>lex_state = 14,
       external_lex_state = 4\<rparr>),
     (844, \<lparr>lex_state = 14, external_lex_state = 4\<rparr>), (845, \<lparr>lex_state = 14,
       external_lex_state = 4\<rparr>),
     (846, \<lparr>lex_state = 14, external_lex_state = 4\<rparr>), (847, \<lparr>lex_state = 14,
       external_lex_state = 4\<rparr>),
     (848, \<lparr>lex_state = 14, external_lex_state = 4\<rparr>), (849, \<lparr>lex_state = 14,
       external_lex_state = 4\<rparr>),
     (850, \<lparr>lex_state = 14, external_lex_state = 4\<rparr>), (851, \<lparr>lex_state = 14,
       external_lex_state = 4\<rparr>),
     (852, \<lparr>lex_state = 14, external_lex_state = 3\<rparr>), (853, \<lparr>lex_state = 14,
       external_lex_state = 4\<rparr>),
     (854, \<lparr>lex_state = 14, external_lex_state = 4\<rparr>), (855, \<lparr>lex_state = 14,
       external_lex_state = 4\<rparr>),
     (856, \<lparr>lex_state = 14, external_lex_state = 3\<rparr>), (857, \<lparr>lex_state = 14,
       external_lex_state = 4\<rparr>),
     (858, \<lparr>lex_state = 14, external_lex_state = 4\<rparr>), (859, \<lparr>lex_state = 14,
       external_lex_state = 4\<rparr>),
     (860, \<lparr>lex_state = 20, external_lex_state = 2\<rparr>), (861, \<lparr>lex_state = 14,
       external_lex_state = 4\<rparr>),
     (862, \<lparr>lex_state = 14, external_lex_state = 4\<rparr>), (863, \<lparr>lex_state = 14,
       external_lex_state = 4\<rparr>),
     (864, \<lparr>lex_state = 14, external_lex_state = 4\<rparr>), (865, \<lparr>lex_state = 14,
       external_lex_state = 4\<rparr>),
     (866, \<lparr>lex_state = 14, external_lex_state = 4\<rparr>), (867, \<lparr>lex_state = 14,
       external_lex_state = 4\<rparr>),
     (868, \<lparr>lex_state = 20, external_lex_state = 2\<rparr>), (869, \<lparr>lex_state = 14,
       external_lex_state = 4\<rparr>),
     (870, \<lparr>lex_state = 14, external_lex_state = 4\<rparr>), (871, \<lparr>lex_state = 20,
       external_lex_state = 2\<rparr>),
     (872, \<lparr>lex_state = 14, external_lex_state = 4\<rparr>), (873, \<lparr>lex_state = 20,
       external_lex_state = 2\<rparr>),
     (874, \<lparr>lex_state = 14, external_lex_state = 4\<rparr>), (875, \<lparr>lex_state = 20,
       external_lex_state = 2\<rparr>),
     (876, \<lparr>lex_state = 14, external_lex_state = 4\<rparr>), (877, \<lparr>lex_state = 14,
       external_lex_state = 4\<rparr>),
     (878, \<lparr>lex_state = 14, external_lex_state = 4\<rparr>), (879, \<lparr>lex_state = 14,
       external_lex_state = 4\<rparr>),
     (880, \<lparr>lex_state = 14, external_lex_state = 4\<rparr>), (881, \<lparr>lex_state = 14,
       external_lex_state = 4\<rparr>),
     (882, \<lparr>lex_state = 14, external_lex_state = 4\<rparr>), (883, \<lparr>lex_state = 14,
       external_lex_state = 4\<rparr>),
     (884, \<lparr>lex_state = 14, external_lex_state = 4\<rparr>), (885, \<lparr>lex_state = 14,
       external_lex_state = 4\<rparr>),
     (886, \<lparr>lex_state = 14, external_lex_state = 4\<rparr>), (887, \<lparr>lex_state = 14,
       external_lex_state = 4\<rparr>),
     (888, \<lparr>lex_state = 14, external_lex_state = 4\<rparr>), (889, \<lparr>lex_state = 14,
       external_lex_state = 4\<rparr>),
     (890, \<lparr>lex_state = 14, external_lex_state = 4\<rparr>), (891, \<lparr>lex_state = 14,
       external_lex_state = 4\<rparr>),
     (892, \<lparr>lex_state = 14, external_lex_state = 4\<rparr>), (893, \<lparr>lex_state = 14,
       external_lex_state = 4\<rparr>),
     (894, \<lparr>lex_state = 14, external_lex_state = 4\<rparr>), (895, \<lparr>lex_state = 14,
       external_lex_state = 4\<rparr>),
     (896, \<lparr>lex_state = 14, external_lex_state = 4\<rparr>), (897, \<lparr>lex_state = 14,
       external_lex_state = 4\<rparr>),
     (898, \<lparr>lex_state = 14, external_lex_state = 4\<rparr>), (899, \<lparr>lex_state = 14,
       external_lex_state = 4\<rparr>)]"

definition mozjs_lex_modes_6 :: "(nat \<times> TSLexMode) list" where
  "mozjs_lex_modes_6 =
    [(900, \<lparr>lex_state = 14, external_lex_state = 4\<rparr>), (901, \<lparr>lex_state = 14,
      external_lex_state = 4\<rparr>),
     (902, \<lparr>lex_state = 14, external_lex_state = 4\<rparr>), (903, \<lparr>lex_state = 14,
       external_lex_state = 4\<rparr>),
     (904, \<lparr>lex_state = 14, external_lex_state = 4\<rparr>), (905, \<lparr>lex_state = 14,
       external_lex_state = 3\<rparr>),
     (906, \<lparr>lex_state = 14, external_lex_state = 4\<rparr>), (907, \<lparr>lex_state = 18,
       external_lex_state = 4\<rparr>),
     (908, \<lparr>lex_state = 14, external_lex_state = 3\<rparr>), (909, \<lparr>lex_state = 14,
       external_lex_state = 4\<rparr>),
     (910, \<lparr>lex_state = 14, external_lex_state = 4\<rparr>), (911, \<lparr>lex_state = 14,
       external_lex_state = 4\<rparr>),
     (912, \<lparr>lex_state = 14, external_lex_state = 4\<rparr>), (913, \<lparr>lex_state = 14,
       external_lex_state = 4\<rparr>),
     (914, \<lparr>lex_state = 14, external_lex_state = 4\<rparr>), (915, \<lparr>lex_state = 14,
       external_lex_state = 4\<rparr>),
     (916, \<lparr>lex_state = 14, external_lex_state = 4\<rparr>), (917, \<lparr>lex_state = 14,
       external_lex_state = 4\<rparr>),
     (918, \<lparr>lex_state = 14, external_lex_state = 4\<rparr>), (919, \<lparr>lex_state = 14,
       external_lex_state = 4\<rparr>),
     (920, \<lparr>lex_state = 14, external_lex_state = 4\<rparr>), (921, \<lparr>lex_state = 14,
       external_lex_state = 4\<rparr>),
     (922, \<lparr>lex_state = 14, external_lex_state = 4\<rparr>), (923, \<lparr>lex_state = 14,
       external_lex_state = 4\<rparr>),
     (924, \<lparr>lex_state = 14, external_lex_state = 4\<rparr>), (925, \<lparr>lex_state = 14,
       external_lex_state = 4\<rparr>),
     (926, \<lparr>lex_state = 14, external_lex_state = 4\<rparr>), (927, \<lparr>lex_state = 14,
       external_lex_state = 4\<rparr>),
     (928, \<lparr>lex_state = 14, external_lex_state = 4\<rparr>), (929, \<lparr>lex_state = 14,
       external_lex_state = 4\<rparr>),
     (930, \<lparr>lex_state = 14, external_lex_state = 4\<rparr>), (931, \<lparr>lex_state = 14,
       external_lex_state = 4\<rparr>),
     (932, \<lparr>lex_state = 14, external_lex_state = 4\<rparr>), (933, \<lparr>lex_state = 14,
       external_lex_state = 4\<rparr>),
     (934, \<lparr>lex_state = 14, external_lex_state = 4\<rparr>), (935, \<lparr>lex_state = 14,
       external_lex_state = 4\<rparr>),
     (936, \<lparr>lex_state = 14, external_lex_state = 4\<rparr>), (937, \<lparr>lex_state = 14,
       external_lex_state = 4\<rparr>),
     (938, \<lparr>lex_state = 14, external_lex_state = 4\<rparr>), (939, \<lparr>lex_state = 14,
       external_lex_state = 4\<rparr>),
     (940, \<lparr>lex_state = 14, external_lex_state = 4\<rparr>), (941, \<lparr>lex_state = 14,
       external_lex_state = 4\<rparr>),
     (942, \<lparr>lex_state = 14, external_lex_state = 4\<rparr>), (943, \<lparr>lex_state = 14,
       external_lex_state = 4\<rparr>),
     (944, \<lparr>lex_state = 14, external_lex_state = 4\<rparr>), (945, \<lparr>lex_state = 14,
       external_lex_state = 4\<rparr>),
     (946, \<lparr>lex_state = 14, external_lex_state = 4\<rparr>), (947, \<lparr>lex_state = 14,
       external_lex_state = 4\<rparr>),
     (948, \<lparr>lex_state = 14, external_lex_state = 4\<rparr>), (949, \<lparr>lex_state = 14,
       external_lex_state = 4\<rparr>),
     (950, \<lparr>lex_state = 14, external_lex_state = 4\<rparr>), (951, \<lparr>lex_state = 14,
       external_lex_state = 4\<rparr>),
     (952, \<lparr>lex_state = 14, external_lex_state = 4\<rparr>), (953, \<lparr>lex_state = 14,
       external_lex_state = 4\<rparr>),
     (954, \<lparr>lex_state = 14, external_lex_state = 4\<rparr>), (955, \<lparr>lex_state = 14,
       external_lex_state = 4\<rparr>),
     (956, \<lparr>lex_state = 14, external_lex_state = 4\<rparr>), (957, \<lparr>lex_state = 14,
       external_lex_state = 4\<rparr>),
     (958, \<lparr>lex_state = 14, external_lex_state = 4\<rparr>), (959, \<lparr>lex_state = 14,
       external_lex_state = 4\<rparr>),
     (960, \<lparr>lex_state = 14, external_lex_state = 4\<rparr>), (961, \<lparr>lex_state = 14,
       external_lex_state = 4\<rparr>),
     (962, \<lparr>lex_state = 14, external_lex_state = 4\<rparr>), (963, \<lparr>lex_state = 14,
       external_lex_state = 4\<rparr>),
     (964, \<lparr>lex_state = 14, external_lex_state = 4\<rparr>), (965, \<lparr>lex_state = 14,
       external_lex_state = 4\<rparr>),
     (966, \<lparr>lex_state = 14, external_lex_state = 4\<rparr>), (967, \<lparr>lex_state = 14,
       external_lex_state = 4\<rparr>),
     (968, \<lparr>lex_state = 14, external_lex_state = 4\<rparr>), (969, \<lparr>lex_state = 14,
       external_lex_state = 4\<rparr>),
     (970, \<lparr>lex_state = 14, external_lex_state = 4\<rparr>), (971, \<lparr>lex_state = 14,
       external_lex_state = 4\<rparr>),
     (972, \<lparr>lex_state = 14, external_lex_state = 4\<rparr>), (973, \<lparr>lex_state = 14,
       external_lex_state = 4\<rparr>),
     (974, \<lparr>lex_state = 14, external_lex_state = 4\<rparr>), (975, \<lparr>lex_state = 14,
       external_lex_state = 4\<rparr>),
     (976, \<lparr>lex_state = 20, external_lex_state = 2\<rparr>), (977, \<lparr>lex_state = 14,
       external_lex_state = 4\<rparr>),
     (978, \<lparr>lex_state = 14, external_lex_state = 4\<rparr>), (979, \<lparr>lex_state = 14,
       external_lex_state = 4\<rparr>),
     (980, \<lparr>lex_state = 14, external_lex_state = 4\<rparr>), (981, \<lparr>lex_state = 14,
       external_lex_state = 4\<rparr>),
     (982, \<lparr>lex_state = 14, external_lex_state = 4\<rparr>), (983, \<lparr>lex_state = 14,
       external_lex_state = 4\<rparr>),
     (984, \<lparr>lex_state = 14, external_lex_state = 4\<rparr>), (985, \<lparr>lex_state = 14,
       external_lex_state = 4\<rparr>),
     (986, \<lparr>lex_state = 20, external_lex_state = 2\<rparr>), (987, \<lparr>lex_state = 20,
       external_lex_state = 2\<rparr>),
     (988, \<lparr>lex_state = 20, external_lex_state = 2\<rparr>), (989, \<lparr>lex_state = 16,
       external_lex_state = 2\<rparr>),
     (990, \<lparr>lex_state = 20, external_lex_state = 2\<rparr>), (991, \<lparr>lex_state = 20,
       external_lex_state = 2\<rparr>),
     (992, \<lparr>lex_state = 20, external_lex_state = 2\<rparr>), (993, \<lparr>lex_state = 20,
       external_lex_state = 2\<rparr>),
     (994, \<lparr>lex_state = 20, external_lex_state = 2\<rparr>), (995, \<lparr>lex_state = 16,
       external_lex_state = 2\<rparr>),
     (996, \<lparr>lex_state = 20, external_lex_state = 2\<rparr>), (997, \<lparr>lex_state = 16,
       external_lex_state = 2\<rparr>),
     (998, \<lparr>lex_state = 13, external_lex_state = 2\<rparr>), (999, \<lparr>lex_state = 13,
       external_lex_state = 2\<rparr>),
     (1000, \<lparr>lex_state = 13, external_lex_state = 2\<rparr>), (1001, \<lparr>lex_state =
       13, external_lex_state = 2\<rparr>),
     (1002, \<lparr>lex_state = 13, external_lex_state = 2\<rparr>), (1003, \<lparr>lex_state =
       13, external_lex_state = 2\<rparr>),
     (1004, \<lparr>lex_state = 13, external_lex_state = 2\<rparr>), (1005, \<lparr>lex_state =
       13, external_lex_state = 2\<rparr>),
     (1006, \<lparr>lex_state = 13, external_lex_state = 2\<rparr>), (1007, \<lparr>lex_state =
       13, external_lex_state = 2\<rparr>),
     (1008, \<lparr>lex_state = 13, external_lex_state = 2\<rparr>), (1009, \<lparr>lex_state =
       13, external_lex_state = 2\<rparr>),
     (1010, \<lparr>lex_state = 13, external_lex_state = 2\<rparr>), (1011, \<lparr>lex_state =
       13, external_lex_state = 2\<rparr>),
     (1012, \<lparr>lex_state = 13, external_lex_state = 2\<rparr>), (1013, \<lparr>lex_state =
       13, external_lex_state = 5\<rparr>),
     (1014, \<lparr>lex_state = 13, external_lex_state = 2\<rparr>), (1015, \<lparr>lex_state =
       13, external_lex_state = 2\<rparr>),
     (1016, \<lparr>lex_state = 13, external_lex_state = 2\<rparr>), (1017, \<lparr>lex_state =
       13, external_lex_state = 2\<rparr>),
     (1018, \<lparr>lex_state = 13, external_lex_state = 2\<rparr>), (1019, \<lparr>lex_state =
       13, external_lex_state = 2\<rparr>),
     (1020, \<lparr>lex_state = 13, external_lex_state = 2\<rparr>), (1021, \<lparr>lex_state =
       20, external_lex_state = 2\<rparr>),
     (1022, \<lparr>lex_state = 13, external_lex_state = 5\<rparr>), (1023, \<lparr>lex_state =
       20, external_lex_state = 2\<rparr>),
     (1024, \<lparr>lex_state = 13, external_lex_state = 5\<rparr>), (1025, \<lparr>lex_state =
       13, external_lex_state = 2\<rparr>),
     (1026, \<lparr>lex_state = 13, external_lex_state = 2\<rparr>), (1027, \<lparr>lex_state =
       13, external_lex_state = 5\<rparr>),
     (1028, \<lparr>lex_state = 13, external_lex_state = 2\<rparr>), (1029, \<lparr>lex_state =
       13, external_lex_state = 5\<rparr>),
     (1030, \<lparr>lex_state = 20, external_lex_state = 2\<rparr>), (1031, \<lparr>lex_state =
       13, external_lex_state = 2\<rparr>),
     (1032, \<lparr>lex_state = 13, external_lex_state = 5\<rparr>), (1033, \<lparr>lex_state =
       13, external_lex_state = 5\<rparr>),
     (1034, \<lparr>lex_state = 21, external_lex_state = 2\<rparr>), (1035, \<lparr>lex_state =
       13, external_lex_state = 5\<rparr>),
     (1036, \<lparr>lex_state = 13, external_lex_state = 5\<rparr>), (1037, \<lparr>lex_state =
       13, external_lex_state = 5\<rparr>),
     (1038, \<lparr>lex_state = 13, external_lex_state = 2\<rparr>), (1039, \<lparr>lex_state =
       138, external_lex_state = 2\<rparr>),
     (1040, \<lparr>lex_state = 13, external_lex_state = 5\<rparr>), (1041, \<lparr>lex_state =
       13, external_lex_state = 5\<rparr>),
     (1042, \<lparr>lex_state = 20, external_lex_state = 2\<rparr>), (1043, \<lparr>lex_state =
       20, external_lex_state = 2\<rparr>),
     (1044, \<lparr>lex_state = 20, external_lex_state = 2\<rparr>), (1045, \<lparr>lex_state =
       138, external_lex_state = 2\<rparr>),
     (1046, \<lparr>lex_state = 20, external_lex_state = 2\<rparr>), (1047, \<lparr>lex_state =
       20, external_lex_state = 2\<rparr>),
     (1048, \<lparr>lex_state = 20, external_lex_state = 2\<rparr>), (1049, \<lparr>lex_state =
       20, external_lex_state = 2\<rparr>)]"

definition mozjs_lex_modes_7 :: "(nat \<times> TSLexMode) list" where
  "mozjs_lex_modes_7 =
    [(1050, \<lparr>lex_state = 20, external_lex_state = 2\<rparr>), (1051, \<lparr>lex_state =
      20, external_lex_state = 2\<rparr>),
     (1052, \<lparr>lex_state = 20, external_lex_state = 5\<rparr>), (1053, \<lparr>lex_state =
       20, external_lex_state = 2\<rparr>),
     (1054, \<lparr>lex_state = 20, external_lex_state = 2\<rparr>), (1055, \<lparr>lex_state =
       20, external_lex_state = 2\<rparr>),
     (1056, \<lparr>lex_state = 20, external_lex_state = 2\<rparr>), (1057, \<lparr>lex_state =
       20, external_lex_state = 5\<rparr>),
     (1058, \<lparr>lex_state = 20, external_lex_state = 2\<rparr>), (1059, \<lparr>lex_state =
       20, external_lex_state = 2\<rparr>),
     (1060, \<lparr>lex_state = 20, external_lex_state = 2\<rparr>), (1061, \<lparr>lex_state =
       20, external_lex_state = 2\<rparr>),
     (1062, \<lparr>lex_state = 20, external_lex_state = 2\<rparr>), (1063, \<lparr>lex_state =
       138, external_lex_state = 2\<rparr>),
     (1064, \<lparr>lex_state = 20, external_lex_state = 2\<rparr>), (1065, \<lparr>lex_state =
       20, external_lex_state = 2\<rparr>),
     (1066, \<lparr>lex_state = 21, external_lex_state = 2\<rparr>), (1067, \<lparr>lex_state =
       20, external_lex_state = 2\<rparr>),
     (1068, \<lparr>lex_state = 20, external_lex_state = 2\<rparr>), (1069, \<lparr>lex_state =
       20, external_lex_state = 2\<rparr>),
     (1070, \<lparr>lex_state = 20, external_lex_state = 2\<rparr>), (1071, \<lparr>lex_state =
       20, external_lex_state = 2\<rparr>),
     (1072, \<lparr>lex_state = 20, external_lex_state = 2\<rparr>), (1073, \<lparr>lex_state =
       20, external_lex_state = 2\<rparr>),
     (1074, \<lparr>lex_state = 20, external_lex_state = 2\<rparr>), (1075, \<lparr>lex_state =
       20, external_lex_state = 2\<rparr>),
     (1076, \<lparr>lex_state = 13, external_lex_state = 2\<rparr>), (1077, \<lparr>lex_state =
       20, external_lex_state = 2\<rparr>),
     (1078, \<lparr>lex_state = 13, external_lex_state = 2\<rparr>), (1079, \<lparr>lex_state =
       13, external_lex_state = 2\<rparr>),
     (1080, \<lparr>lex_state = 20, external_lex_state = 2\<rparr>), (1081, \<lparr>lex_state =
       13, external_lex_state = 2\<rparr>),
     (1082, \<lparr>lex_state = 13, external_lex_state = 2\<rparr>), (1083, \<lparr>lex_state =
       13, external_lex_state = 2\<rparr>),
     (1084, \<lparr>lex_state = 20, external_lex_state = 2\<rparr>), (1085, \<lparr>lex_state =
       20, external_lex_state = 2\<rparr>),
     (1086, \<lparr>lex_state = 13, external_lex_state = 2\<rparr>), (1087, \<lparr>lex_state =
       20, external_lex_state = 2\<rparr>),
     (1088, \<lparr>lex_state = 20, external_lex_state = 2\<rparr>), (1089, \<lparr>lex_state =
       20, external_lex_state = 2\<rparr>),
     (1090, \<lparr>lex_state = 13, external_lex_state = 2\<rparr>), (1091, \<lparr>lex_state =
       13, external_lex_state = 2\<rparr>),
     (1092, \<lparr>lex_state = 13, external_lex_state = 2\<rparr>), (1093, \<lparr>lex_state =
       13, external_lex_state = 2\<rparr>),
     (1094, \<lparr>lex_state = 13, external_lex_state = 2\<rparr>), (1095, \<lparr>lex_state =
       13, external_lex_state = 2\<rparr>),
     (1096, \<lparr>lex_state = 20, external_lex_state = 2\<rparr>), (1097, \<lparr>lex_state =
       13, external_lex_state = 2\<rparr>),
     (1098, \<lparr>lex_state = 13, external_lex_state = 2\<rparr>), (1099, \<lparr>lex_state =
       13, external_lex_state = 2\<rparr>),
     (1100, \<lparr>lex_state = 13, external_lex_state = 2\<rparr>), (1101, \<lparr>lex_state =
       13, external_lex_state = 2\<rparr>),
     (1102, \<lparr>lex_state = 13, external_lex_state = 2\<rparr>), (1103, \<lparr>lex_state =
       13, external_lex_state = 2\<rparr>),
     (1104, \<lparr>lex_state = 13, external_lex_state = 2\<rparr>), (1105, \<lparr>lex_state =
       13, external_lex_state = 2\<rparr>),
     (1106, \<lparr>lex_state = 13, external_lex_state = 2\<rparr>), (1107, \<lparr>lex_state =
       13, external_lex_state = 2\<rparr>),
     (1108, \<lparr>lex_state = 20, external_lex_state = 2\<rparr>), (1109, \<lparr>lex_state =
       20, external_lex_state = 2\<rparr>),
     (1110, \<lparr>lex_state = 20, external_lex_state = 2\<rparr>), (1111, \<lparr>lex_state =
       20, external_lex_state = 2\<rparr>),
     (1112, \<lparr>lex_state = 20, external_lex_state = 2\<rparr>), (1113, \<lparr>lex_state =
       13, external_lex_state = 2\<rparr>),
     (1114, \<lparr>lex_state = 13, external_lex_state = 2\<rparr>), (1115, \<lparr>lex_state =
       13, external_lex_state = 2\<rparr>),
     (1116, \<lparr>lex_state = 13, external_lex_state = 2\<rparr>), (1117, \<lparr>lex_state =
       13, external_lex_state = 2\<rparr>),
     (1118, \<lparr>lex_state = 13, external_lex_state = 2\<rparr>), (1119, \<lparr>lex_state =
       13, external_lex_state = 2\<rparr>),
     (1120, \<lparr>lex_state = 13, external_lex_state = 2\<rparr>), (1121, \<lparr>lex_state =
       13, external_lex_state = 2\<rparr>),
     (1122, \<lparr>lex_state = 13, external_lex_state = 2\<rparr>), (1123, \<lparr>lex_state =
       13, external_lex_state = 2\<rparr>),
     (1124, \<lparr>lex_state = 13, external_lex_state = 2\<rparr>), (1125, \<lparr>lex_state =
       13, external_lex_state = 2\<rparr>),
     (1126, \<lparr>lex_state = 13, external_lex_state = 2\<rparr>), (1127, \<lparr>lex_state =
       13, external_lex_state = 2\<rparr>),
     (1128, \<lparr>lex_state = 13, external_lex_state = 2\<rparr>), (1129, \<lparr>lex_state =
       13, external_lex_state = 2\<rparr>),
     (1130, \<lparr>lex_state = 13, external_lex_state = 2\<rparr>), (1131, \<lparr>lex_state =
       13, external_lex_state = 2\<rparr>),
     (1132, \<lparr>lex_state = 13, external_lex_state = 2\<rparr>), (1133, \<lparr>lex_state =
       13, external_lex_state = 2\<rparr>),
     (1134, \<lparr>lex_state = 13, external_lex_state = 2\<rparr>), (1135, \<lparr>lex_state =
       13, external_lex_state = 2\<rparr>),
     (1136, \<lparr>lex_state = 13, external_lex_state = 2\<rparr>), (1137, \<lparr>lex_state =
       13, external_lex_state = 2\<rparr>),
     (1138, \<lparr>lex_state = 13, external_lex_state = 2\<rparr>), (1139, \<lparr>lex_state =
       13, external_lex_state = 2\<rparr>),
     (1140, \<lparr>lex_state = 13, external_lex_state = 2\<rparr>), (1141, \<lparr>lex_state =
       13, external_lex_state = 2\<rparr>),
     (1142, \<lparr>lex_state = 13, external_lex_state = 2\<rparr>), (1143, \<lparr>lex_state =
       13, external_lex_state = 2\<rparr>),
     (1144, \<lparr>lex_state = 13, external_lex_state = 2\<rparr>), (1145, \<lparr>lex_state =
       13, external_lex_state = 2\<rparr>),
     (1146, \<lparr>lex_state = 13, external_lex_state = 2\<rparr>), (1147, \<lparr>lex_state =
       13, external_lex_state = 2\<rparr>),
     (1148, \<lparr>lex_state = 13, external_lex_state = 2\<rparr>), (1149, \<lparr>lex_state =
       138, external_lex_state = 2\<rparr>),
     (1150, \<lparr>lex_state = 44, external_lex_state = 2\<rparr>), (1151, \<lparr>lex_state =
       44, external_lex_state = 2\<rparr>),
     (1152, \<lparr>lex_state = 20, external_lex_state = 6\<rparr>), (1153, \<lparr>lex_state =
       20, external_lex_state = 6\<rparr>),
     (1154, \<lparr>lex_state = 20, external_lex_state = 6\<rparr>), (1155, \<lparr>lex_state =
       44, external_lex_state = 2\<rparr>),
     (1156, \<lparr>lex_state = 20, external_lex_state = 6\<rparr>), (1157, \<lparr>lex_state =
       20, external_lex_state = 6\<rparr>),
     (1158, \<lparr>lex_state = 20, external_lex_state = 6\<rparr>), (1159, \<lparr>lex_state =
       44, external_lex_state = 2\<rparr>),
     (1160, \<lparr>lex_state = 20, external_lex_state = 6\<rparr>), (1161, \<lparr>lex_state =
       20, external_lex_state = 6\<rparr>),
     (1162, \<lparr>lex_state = 44, external_lex_state = 2\<rparr>), (1163, \<lparr>lex_state =
       44, external_lex_state = 2\<rparr>),
     (1164, \<lparr>lex_state = 44, external_lex_state = 2\<rparr>), (1165, \<lparr>lex_state =
       44, external_lex_state = 2\<rparr>),
     (1166, \<lparr>lex_state = 44, external_lex_state = 2\<rparr>), (1167, \<lparr>lex_state =
       20, external_lex_state = 6\<rparr>),
     (1168, \<lparr>lex_state = 44, external_lex_state = 2\<rparr>), (1169, \<lparr>lex_state =
       44, external_lex_state = 2\<rparr>),
     (1170, \<lparr>lex_state = 44, external_lex_state = 2\<rparr>), (1171, \<lparr>lex_state =
       44, external_lex_state = 2\<rparr>),
     (1172, \<lparr>lex_state = 44, external_lex_state = 2\<rparr>), (1173, \<lparr>lex_state =
       44, external_lex_state = 2\<rparr>),
     (1174, \<lparr>lex_state = 44, external_lex_state = 2\<rparr>), (1175, \<lparr>lex_state =
       44, external_lex_state = 2\<rparr>),
     (1176, \<lparr>lex_state = 44, external_lex_state = 2\<rparr>), (1177, \<lparr>lex_state =
       44, external_lex_state = 2\<rparr>),
     (1178, \<lparr>lex_state = 44, external_lex_state = 2\<rparr>), (1179, \<lparr>lex_state =
       138, external_lex_state = 2\<rparr>),
     (1180, \<lparr>lex_state = 44, external_lex_state = 2\<rparr>), (1181, \<lparr>lex_state =
       138, external_lex_state = 2\<rparr>),
     (1182, \<lparr>lex_state = 44, external_lex_state = 2\<rparr>), (1183, \<lparr>lex_state =
       138, external_lex_state = 2\<rparr>),
     (1184, \<lparr>lex_state = 44, external_lex_state = 2\<rparr>), (1185, \<lparr>lex_state =
       44, external_lex_state = 2\<rparr>),
     (1186, \<lparr>lex_state = 44, external_lex_state = 2\<rparr>), (1187, \<lparr>lex_state =
       44, external_lex_state = 2\<rparr>),
     (1188, \<lparr>lex_state = 44, external_lex_state = 2\<rparr>), (1189, \<lparr>lex_state =
       44, external_lex_state = 2\<rparr>),
     (1190, \<lparr>lex_state = 44, external_lex_state = 2\<rparr>), (1191, \<lparr>lex_state =
       44, external_lex_state = 2\<rparr>),
     (1192, \<lparr>lex_state = 44, external_lex_state = 2\<rparr>), (1193, \<lparr>lex_state =
       44, external_lex_state = 2\<rparr>),
     (1194, \<lparr>lex_state = 138, external_lex_state = 2\<rparr>), (1195, \<lparr>lex_state =
       44, external_lex_state = 2\<rparr>),
     (1196, \<lparr>lex_state = 138, external_lex_state = 2\<rparr>), (1197, \<lparr>lex_state =
       138, external_lex_state = 2\<rparr>),
     (1198, \<lparr>lex_state = 138, external_lex_state = 2\<rparr>), (1199, \<lparr>lex_state =
       138, external_lex_state = 2\<rparr>)]"

definition mozjs_lex_modes_8 :: "(nat \<times> TSLexMode) list" where
  "mozjs_lex_modes_8 =
    [(1200, \<lparr>lex_state = 138, external_lex_state = 2\<rparr>), (1201, \<lparr>lex_state =
      138, external_lex_state = 2\<rparr>),
     (1202, \<lparr>lex_state = 138, external_lex_state = 2\<rparr>), (1203, \<lparr>lex_state =
       138, external_lex_state = 2\<rparr>),
     (1204, \<lparr>lex_state = 138, external_lex_state = 2\<rparr>), (1205, \<lparr>lex_state =
       138, external_lex_state = 2\<rparr>),
     (1206, \<lparr>lex_state = 138, external_lex_state = 2\<rparr>), (1207, \<lparr>lex_state =
       138, external_lex_state = 2\<rparr>),
     (1208, \<lparr>lex_state = 138, external_lex_state = 2\<rparr>), (1209, \<lparr>lex_state =
       138, external_lex_state = 2\<rparr>),
     (1210, \<lparr>lex_state = 138, external_lex_state = 2\<rparr>), (1211, \<lparr>lex_state =
       138, external_lex_state = 2\<rparr>),
     (1212, \<lparr>lex_state = 138, external_lex_state = 5\<rparr>), (1213, \<lparr>lex_state =
       138, external_lex_state = 2\<rparr>),
     (1214, \<lparr>lex_state = 138, external_lex_state = 5\<rparr>), (1215, \<lparr>lex_state =
       138, external_lex_state = 5\<rparr>),
     (1216, \<lparr>lex_state = 138, external_lex_state = 2\<rparr>), (1217, \<lparr>lex_state =
       138, external_lex_state = 2\<rparr>),
     (1218, \<lparr>lex_state = 44, external_lex_state = 2\<rparr>), (1219, \<lparr>lex_state =
       138, external_lex_state = 2\<rparr>),
     (1220, \<lparr>lex_state = 138, external_lex_state = 2\<rparr>), (1221, \<lparr>lex_state =
       138, external_lex_state = 5\<rparr>),
     (1222, \<lparr>lex_state = 138, external_lex_state = 2\<rparr>), (1223, \<lparr>lex_state =
       138, external_lex_state = 2\<rparr>),
     (1224, \<lparr>lex_state = 138, external_lex_state = 2\<rparr>), (1225, \<lparr>lex_state =
       138, external_lex_state = 2\<rparr>),
     (1226, \<lparr>lex_state = 138, external_lex_state = 2\<rparr>), (1227, \<lparr>lex_state =
       138, external_lex_state = 2\<rparr>),
     (1228, \<lparr>lex_state = 138, external_lex_state = 2\<rparr>), (1229, \<lparr>lex_state =
       138, external_lex_state = 2\<rparr>),
     (1230, \<lparr>lex_state = 138, external_lex_state = 5\<rparr>), (1231, \<lparr>lex_state =
       44, external_lex_state = 2\<rparr>),
     (1232, \<lparr>lex_state = 28, external_lex_state = 7\<rparr>), (1233, \<lparr>lex_state =
       138, external_lex_state = 5\<rparr>),
     (1234, \<lparr>lex_state = 138, external_lex_state = 2\<rparr>), (1235, \<lparr>lex_state =
       138, external_lex_state = 5\<rparr>),
     (1236, \<lparr>lex_state = 28, external_lex_state = 7\<rparr>), (1237, \<lparr>lex_state =
       28, external_lex_state = 7\<rparr>),
     (1238, \<lparr>lex_state = 138, external_lex_state = 2\<rparr>), (1239, \<lparr>lex_state =
       138, external_lex_state = 5\<rparr>),
     (1240, \<lparr>lex_state = 44, external_lex_state = 2\<rparr>), (1241, \<lparr>lex_state =
       44, external_lex_state = 2\<rparr>),
     (1242, \<lparr>lex_state = 138, external_lex_state = 2\<rparr>), (1243, \<lparr>lex_state =
       138, external_lex_state = 5\<rparr>),
     (1244, \<lparr>lex_state = 28, external_lex_state = 7\<rparr>), (1245, \<lparr>lex_state =
       138, external_lex_state = 5\<rparr>),
     (1246, \<lparr>lex_state = 138, external_lex_state = 5\<rparr>), (1247, \<lparr>lex_state =
       138, external_lex_state = 5\<rparr>),
     (1248, \<lparr>lex_state = 138, external_lex_state = 5\<rparr>), (1249, \<lparr>lex_state =
       138, external_lex_state = 5\<rparr>),
     (1250, \<lparr>lex_state = 138, external_lex_state = 2\<rparr>), (1251, \<lparr>lex_state =
       138, external_lex_state = 5\<rparr>),
     (1252, \<lparr>lex_state = 138, external_lex_state = 2\<rparr>), (1253, \<lparr>lex_state =
       28, external_lex_state = 7\<rparr>),
     (1254, \<lparr>lex_state = 138, external_lex_state = 2\<rparr>), (1255, \<lparr>lex_state =
       138, external_lex_state = 2\<rparr>),
     (1256, \<lparr>lex_state = 138, external_lex_state = 2\<rparr>), (1257, \<lparr>lex_state =
       138, external_lex_state = 5\<rparr>),
     (1258, \<lparr>lex_state = 138, external_lex_state = 2\<rparr>), (1259, \<lparr>lex_state =
       138, external_lex_state = 2\<rparr>),
     (1260, \<lparr>lex_state = 20, external_lex_state = 6\<rparr>), (1261, \<lparr>lex_state =
       138, external_lex_state = 2\<rparr>),
     (1262, \<lparr>lex_state = 20, external_lex_state = 6\<rparr>), (1263, \<lparr>lex_state =
       20, external_lex_state = 6\<rparr>),
     (1264, \<lparr>lex_state = 44, external_lex_state = 2\<rparr>), (1265, \<lparr>lex_state =
       138, external_lex_state = 2\<rparr>),
     (1266, \<lparr>lex_state = 138, external_lex_state = 5\<rparr>), (1267, \<lparr>lex_state =
       20, external_lex_state = 6\<rparr>),
     (1268, \<lparr>lex_state = 138, external_lex_state = 2\<rparr>), (1269, \<lparr>lex_state =
       44, external_lex_state = 2\<rparr>),
     (1270, \<lparr>lex_state = 44, external_lex_state = 2\<rparr>), (1271, \<lparr>lex_state =
       20, external_lex_state = 6\<rparr>),
     (1272, \<lparr>lex_state = 44, external_lex_state = 2\<rparr>), (1273, \<lparr>lex_state =
       44, external_lex_state = 2\<rparr>),
     (1274, \<lparr>lex_state = 138, external_lex_state = 2\<rparr>), (1275, \<lparr>lex_state =
       44, external_lex_state = 2\<rparr>),
     (1276, \<lparr>lex_state = 138, external_lex_state = 2\<rparr>), (1277, \<lparr>lex_state =
       20, external_lex_state = 6\<rparr>),
     (1278, \<lparr>lex_state = 138, external_lex_state = 2\<rparr>), (1279, \<lparr>lex_state =
       138, external_lex_state = 5\<rparr>),
     (1280, \<lparr>lex_state = 138, external_lex_state = 2\<rparr>), (1281, \<lparr>lex_state =
       138, external_lex_state = 2\<rparr>),
     (1282, \<lparr>lex_state = 13, external_lex_state = 2\<rparr>), (1283, \<lparr>lex_state =
       138, external_lex_state = 5\<rparr>),
     (1284, \<lparr>lex_state = 44, external_lex_state = 2\<rparr>), (1285, \<lparr>lex_state =
       44, external_lex_state = 2\<rparr>),
     (1286, \<lparr>lex_state = 44, external_lex_state = 2\<rparr>), (1287, \<lparr>lex_state =
       138, external_lex_state = 2\<rparr>),
     (1288, \<lparr>lex_state = 138, external_lex_state = 5\<rparr>), (1289, \<lparr>lex_state =
       138, external_lex_state = 5\<rparr>),
     (1290, \<lparr>lex_state = 138, external_lex_state = 2\<rparr>), (1291, \<lparr>lex_state =
       138, external_lex_state = 2\<rparr>),
     (1292, \<lparr>lex_state = 20, external_lex_state = 6\<rparr>), (1293, \<lparr>lex_state =
       20, external_lex_state = 6\<rparr>),
     (1294, \<lparr>lex_state = 138, external_lex_state = 2\<rparr>), (1295, \<lparr>lex_state =
       44, external_lex_state = 2\<rparr>),
     (1296, \<lparr>lex_state = 44, external_lex_state = 2\<rparr>), (1297, \<lparr>lex_state =
       20, external_lex_state = 6\<rparr>),
     (1298, \<lparr>lex_state = 20, external_lex_state = 6\<rparr>), (1299, \<lparr>lex_state =
       20, external_lex_state = 6\<rparr>),
     (1300, \<lparr>lex_state = 20, external_lex_state = 6\<rparr>), (1301, \<lparr>lex_state =
       20, external_lex_state = 6\<rparr>),
     (1302, \<lparr>lex_state = 20, external_lex_state = 6\<rparr>), (1303, \<lparr>lex_state =
       20, external_lex_state = 6\<rparr>),
     (1304, \<lparr>lex_state = 20, external_lex_state = 6\<rparr>), (1305, \<lparr>lex_state =
       44, external_lex_state = 2\<rparr>),
     (1306, \<lparr>lex_state = 13, external_lex_state = 2\<rparr>), (1307, \<lparr>lex_state =
       44, external_lex_state = 2\<rparr>),
     (1308, \<lparr>lex_state = 138, external_lex_state = 2\<rparr>), (1309, \<lparr>lex_state =
       138, external_lex_state = 2\<rparr>),
     (1310, \<lparr>lex_state = 138, external_lex_state = 2\<rparr>), (1311, \<lparr>lex_state =
       44, external_lex_state = 2\<rparr>),
     (1312, \<lparr>lex_state = 44, external_lex_state = 2\<rparr>), (1313, \<lparr>lex_state =
       44, external_lex_state = 2\<rparr>),
     (1314, \<lparr>lex_state = 44, external_lex_state = 2\<rparr>), (1315, \<lparr>lex_state =
       20, external_lex_state = 6\<rparr>),
     (1316, \<lparr>lex_state = 44, external_lex_state = 2\<rparr>), (1317, \<lparr>lex_state =
       44, external_lex_state = 2\<rparr>),
     (1318, \<lparr>lex_state = 44, external_lex_state = 2\<rparr>), (1319, \<lparr>lex_state =
       44, external_lex_state = 2\<rparr>),
     (1320, \<lparr>lex_state = 44, external_lex_state = 2\<rparr>), (1321, \<lparr>lex_state =
       44, external_lex_state = 2\<rparr>),
     (1322, \<lparr>lex_state = 138, external_lex_state = 2\<rparr>), (1323, \<lparr>lex_state =
       138, external_lex_state = 5\<rparr>),
     (1324, \<lparr>lex_state = 44, external_lex_state = 2\<rparr>), (1325, \<lparr>lex_state =
       138, external_lex_state = 2\<rparr>),
     (1326, \<lparr>lex_state = 138, external_lex_state = 2\<rparr>), (1327, \<lparr>lex_state =
       138, external_lex_state = 2\<rparr>),
     (1328, \<lparr>lex_state = 24, external_lex_state = 8\<rparr>), (1329, \<lparr>lex_state =
       32, external_lex_state = 8\<rparr>),
     (1330, \<lparr>lex_state = 138, external_lex_state = 5\<rparr>), (1331, \<lparr>lex_state =
       138, external_lex_state = 2\<rparr>),
     (1332, \<lparr>lex_state = 24, external_lex_state = 8\<rparr>), (1333, \<lparr>lex_state =
       138, external_lex_state = 2\<rparr>),
     (1334, \<lparr>lex_state = 138, external_lex_state = 5\<rparr>), (1335, \<lparr>lex_state =
       138, external_lex_state = 2\<rparr>),
     (1336, \<lparr>lex_state = 138, external_lex_state = 5\<rparr>), (1337, \<lparr>lex_state =
       138, external_lex_state = 5\<rparr>),
     (1338, \<lparr>lex_state = 32, external_lex_state = 8\<rparr>), (1339, \<lparr>lex_state =
       138, external_lex_state = 5\<rparr>),
     (1340, \<lparr>lex_state = 138, external_lex_state = 2\<rparr>), (1341, \<lparr>lex_state =
       24, external_lex_state = 8\<rparr>),
     (1342, \<lparr>lex_state = 138, external_lex_state = 2\<rparr>), (1343, \<lparr>lex_state =
       138, external_lex_state = 2\<rparr>),
     (1344, \<lparr>lex_state = 138, external_lex_state = 2\<rparr>), (1345, \<lparr>lex_state =
       138, external_lex_state = 2\<rparr>),
     (1346, \<lparr>lex_state = 32, external_lex_state = 8\<rparr>), (1347, \<lparr>lex_state =
       22, external_lex_state = 2\<rparr>),
     (1348, \<lparr>lex_state = 30, external_lex_state = 2\<rparr>), (1349, \<lparr>lex_state =
       138, external_lex_state = 5\<rparr>)]"

definition mozjs_lex_modes_9 :: "(nat \<times> TSLexMode) list" where
  "mozjs_lex_modes_9 =
    [(1350, \<lparr>lex_state = 138, external_lex_state = 5\<rparr>), (1351, \<lparr>lex_state =
      138, external_lex_state = 2\<rparr>),
     (1352, \<lparr>lex_state = 138, external_lex_state = 2\<rparr>), (1353, \<lparr>lex_state =
       138, external_lex_state = 2\<rparr>),
     (1354, \<lparr>lex_state = 138, external_lex_state = 2\<rparr>), (1355, \<lparr>lex_state =
       138, external_lex_state = 2\<rparr>),
     (1356, \<lparr>lex_state = 138, external_lex_state = 2\<rparr>), (1357, \<lparr>lex_state =
       22, external_lex_state = 2\<rparr>),
     (1358, \<lparr>lex_state = 22, external_lex_state = 2\<rparr>), (1359, \<lparr>lex_state =
       30, external_lex_state = 2\<rparr>),
     (1360, \<lparr>lex_state = 24, external_lex_state = 8\<rparr>), (1361, \<lparr>lex_state =
       32, external_lex_state = 8\<rparr>),
     (1362, \<lparr>lex_state = 138, external_lex_state = 5\<rparr>), (1363, \<lparr>lex_state =
       24, external_lex_state = 8\<rparr>),
     (1364, \<lparr>lex_state = 32, external_lex_state = 8\<rparr>), (1365, \<lparr>lex_state =
       138, external_lex_state = 2\<rparr>),
     (1366, \<lparr>lex_state = 138, external_lex_state = 5\<rparr>), (1367, \<lparr>lex_state =
       138, external_lex_state = 5\<rparr>),
     (1368, \<lparr>lex_state = 30, external_lex_state = 2\<rparr>), (1369, \<lparr>lex_state =
       138, external_lex_state = 5\<rparr>),
     (1370, \<lparr>lex_state = 32, external_lex_state = 8\<rparr>), (1371, \<lparr>lex_state =
       138, external_lex_state = 5\<rparr>),
     (1372, \<lparr>lex_state = 24, external_lex_state = 8\<rparr>), (1373, \<lparr>lex_state =
       138, external_lex_state = 2\<rparr>),
     (1374, \<lparr>lex_state = 138, external_lex_state = 2\<rparr>), (1375, \<lparr>lex_state =
       32, external_lex_state = 8\<rparr>),
     (1376, \<lparr>lex_state = 138, external_lex_state = 5\<rparr>), (1377, \<lparr>lex_state =
       138, external_lex_state = 5\<rparr>),
     (1378, \<lparr>lex_state = 138, external_lex_state = 5\<rparr>), (1379, \<lparr>lex_state =
       138, external_lex_state = 2\<rparr>),
     (1380, \<lparr>lex_state = 138, external_lex_state = 2\<rparr>), (1381, \<lparr>lex_state =
       138, external_lex_state = 2\<rparr>),
     (1382, \<lparr>lex_state = 32, external_lex_state = 8\<rparr>), (1383, \<lparr>lex_state =
       138, external_lex_state = 2\<rparr>),
     (1384, \<lparr>lex_state = 138, external_lex_state = 2\<rparr>), (1385, \<lparr>lex_state =
       138, external_lex_state = 2\<rparr>),
     (1386, \<lparr>lex_state = 138, external_lex_state = 2\<rparr>), (1387, \<lparr>lex_state =
       28, external_lex_state = 7\<rparr>),
     (1388, \<lparr>lex_state = 138, external_lex_state = 2\<rparr>), (1389, \<lparr>lex_state =
       138, external_lex_state = 2\<rparr>),
     (1390, \<lparr>lex_state = 138, external_lex_state = 2\<rparr>), (1391, \<lparr>lex_state =
       138, external_lex_state = 5\<rparr>),
     (1392, \<lparr>lex_state = 24, external_lex_state = 8\<rparr>), (1393, \<lparr>lex_state =
       138, external_lex_state = 5\<rparr>),
     (1394, \<lparr>lex_state = 138, external_lex_state = 2\<rparr>), (1395, \<lparr>lex_state =
       138, external_lex_state = 2\<rparr>),
     (1396, \<lparr>lex_state = 138, external_lex_state = 5\<rparr>), (1397, \<lparr>lex_state =
       138, external_lex_state = 2\<rparr>),
     (1398, \<lparr>lex_state = 138, external_lex_state = 2\<rparr>), (1399, \<lparr>lex_state =
       138, external_lex_state = 2\<rparr>),
     (1400, \<lparr>lex_state = 138, external_lex_state = 5\<rparr>), (1401, \<lparr>lex_state =
       138, external_lex_state = 2\<rparr>),
     (1402, \<lparr>lex_state = 138, external_lex_state = 2\<rparr>), (1403, \<lparr>lex_state =
       138, external_lex_state = 2\<rparr>),
     (1404, \<lparr>lex_state = 24, external_lex_state = 8\<rparr>), (1405, \<lparr>lex_state =
       32, external_lex_state = 8\<rparr>),
     (1406, \<lparr>lex_state = 138, external_lex_state = 5\<rparr>), (1407, \<lparr>lex_state =
       24, external_lex_state = 8\<rparr>),
     (1408, \<lparr>lex_state = 138, external_lex_state = 2\<rparr>), (1409, \<lparr>lex_state =
       138, external_lex_state = 5\<rparr>),
     (1410, \<lparr>lex_state = 138, external_lex_state = 2\<rparr>), (1411, \<lparr>lex_state =
       138, external_lex_state = 2\<rparr>),
     (1412, \<lparr>lex_state = 138, external_lex_state = 2\<rparr>), (1413, \<lparr>lex_state =
       138, external_lex_state = 2\<rparr>),
     (1414, \<lparr>lex_state = 138, external_lex_state = 2\<rparr>), (1415, \<lparr>lex_state =
       138, external_lex_state = 2\<rparr>),
     (1416, \<lparr>lex_state = 138, external_lex_state = 2\<rparr>), (1417, \<lparr>lex_state =
       138, external_lex_state = 2\<rparr>),
     (1418, \<lparr>lex_state = 138, external_lex_state = 2\<rparr>), (1419, \<lparr>lex_state =
       138, external_lex_state = 2\<rparr>),
     (1420, \<lparr>lex_state = 138, external_lex_state = 2\<rparr>), (1421, \<lparr>lex_state =
       138, external_lex_state = 5\<rparr>),
     (1422, \<lparr>lex_state = 138, external_lex_state = 2\<rparr>), (1423, \<lparr>lex_state =
       138, external_lex_state = 2\<rparr>),
     (1424, \<lparr>lex_state = 138, external_lex_state = 2\<rparr>), (1425, \<lparr>lex_state =
       138, external_lex_state = 2\<rparr>),
     (1426, \<lparr>lex_state = 138, external_lex_state = 2\<rparr>), (1427, \<lparr>lex_state =
       138, external_lex_state = 2\<rparr>),
     (1428, \<lparr>lex_state = 138, external_lex_state = 2\<rparr>), (1429, \<lparr>lex_state =
       138, external_lex_state = 2\<rparr>),
     (1430, \<lparr>lex_state = 138, external_lex_state = 2\<rparr>), (1431, \<lparr>lex_state =
       13, external_lex_state = 2\<rparr>),
     (1432, \<lparr>lex_state = 138, external_lex_state = 2\<rparr>), (1433, \<lparr>lex_state =
       138, external_lex_state = 2\<rparr>),
     (1434, \<lparr>lex_state = 138, external_lex_state = 2\<rparr>), (1435, \<lparr>lex_state =
       138, external_lex_state = 2\<rparr>),
     (1436, \<lparr>lex_state = 13, external_lex_state = 2\<rparr>), (1437, \<lparr>lex_state =
       138, external_lex_state = 2\<rparr>),
     (1438, \<lparr>lex_state = 138, external_lex_state = 2\<rparr>), (1439, \<lparr>lex_state =
       138, external_lex_state = 2\<rparr>),
     (1440, \<lparr>lex_state = 138, external_lex_state = 2\<rparr>), (1441, \<lparr>lex_state =
       138, external_lex_state = 2\<rparr>),
     (1442, \<lparr>lex_state = 138, external_lex_state = 2\<rparr>), (1443, \<lparr>lex_state =
       138, external_lex_state = 2\<rparr>),
     (1444, \<lparr>lex_state = 138, external_lex_state = 2\<rparr>), (1445, \<lparr>lex_state =
       138, external_lex_state = 5\<rparr>),
     (1446, \<lparr>lex_state = 138, external_lex_state = 2\<rparr>), (1447, \<lparr>lex_state =
       138, external_lex_state = 2\<rparr>),
     (1448, \<lparr>lex_state = 138, external_lex_state = 5\<rparr>), (1449, \<lparr>lex_state =
       138, external_lex_state = 2\<rparr>),
     (1450, \<lparr>lex_state = 138, external_lex_state = 2\<rparr>), (1451, \<lparr>lex_state =
       138, external_lex_state = 2\<rparr>),
     (1452, \<lparr>lex_state = 138, external_lex_state = 2\<rparr>), (1453, \<lparr>lex_state =
       138, external_lex_state = 2\<rparr>),
     (1454, \<lparr>lex_state = 138, external_lex_state = 5\<rparr>), (1455, \<lparr>lex_state =
       138, external_lex_state = 2\<rparr>),
     (1456, \<lparr>lex_state = 138, external_lex_state = 2\<rparr>), (1457, \<lparr>lex_state =
       138, external_lex_state = 5\<rparr>),
     (1458, \<lparr>lex_state = 138, external_lex_state = 5\<rparr>), (1459, \<lparr>lex_state =
       138, external_lex_state = 2\<rparr>),
     (1460, \<lparr>lex_state = 138, external_lex_state = 2\<rparr>), (1461, \<lparr>lex_state =
       138, external_lex_state = 2\<rparr>),
     (1462, \<lparr>lex_state = 138, external_lex_state = 2\<rparr>), (1463, \<lparr>lex_state =
       138, external_lex_state = 2\<rparr>),
     (1464, \<lparr>lex_state = 138, external_lex_state = 2\<rparr>), (1465, \<lparr>lex_state =
       138, external_lex_state = 2\<rparr>),
     (1466, \<lparr>lex_state = 138, external_lex_state = 2\<rparr>), (1467, \<lparr>lex_state =
       138, external_lex_state = 2\<rparr>),
     (1468, \<lparr>lex_state = 138, external_lex_state = 2\<rparr>), (1469, \<lparr>lex_state =
       138, external_lex_state = 2\<rparr>),
     (1470, \<lparr>lex_state = 138, external_lex_state = 2\<rparr>), (1471, \<lparr>lex_state =
       138, external_lex_state = 2\<rparr>),
     (1472, \<lparr>lex_state = 138, external_lex_state = 5\<rparr>), (1473, \<lparr>lex_state =
       138, external_lex_state = 5\<rparr>),
     (1474, \<lparr>lex_state = 138, external_lex_state = 5\<rparr>), (1475, \<lparr>lex_state =
       138, external_lex_state = 2\<rparr>),
     (1476, \<lparr>lex_state = 138, external_lex_state = 2\<rparr>), (1477, \<lparr>lex_state =
       138, external_lex_state = 2\<rparr>),
     (1478, \<lparr>lex_state = 138, external_lex_state = 2\<rparr>), (1479, \<lparr>lex_state =
       138, external_lex_state = 2\<rparr>),
     (1480, \<lparr>lex_state = 138, external_lex_state = 2\<rparr>), (1481, \<lparr>lex_state =
       138, external_lex_state = 2\<rparr>),
     (1482, \<lparr>lex_state = 138, external_lex_state = 2\<rparr>), (1483, \<lparr>lex_state =
       138, external_lex_state = 2\<rparr>),
     (1484, \<lparr>lex_state = 138, external_lex_state = 2\<rparr>), (1485, \<lparr>lex_state =
       138, external_lex_state = 2\<rparr>),
     (1486, \<lparr>lex_state = 138, external_lex_state = 2\<rparr>), (1487, \<lparr>lex_state =
       138, external_lex_state = 2\<rparr>),
     (1488, \<lparr>lex_state = 138, external_lex_state = 2\<rparr>), (1489, \<lparr>lex_state =
       138, external_lex_state = 5\<rparr>),
     (1490, \<lparr>lex_state = 138, external_lex_state = 2\<rparr>), (1491, \<lparr>lex_state =
       138, external_lex_state = 2\<rparr>),
     (1492, \<lparr>lex_state = 138, external_lex_state = 2\<rparr>), (1493, \<lparr>lex_state =
       138, external_lex_state = 2\<rparr>),
     (1494, \<lparr>lex_state = 138, external_lex_state = 5\<rparr>), (1495, \<lparr>lex_state =
       138, external_lex_state = 2\<rparr>),
     (1496, \<lparr>lex_state = 138, external_lex_state = 5\<rparr>), (1497, \<lparr>lex_state =
       138, external_lex_state = 2\<rparr>),
     (1498, \<lparr>lex_state = 138, external_lex_state = 2\<rparr>), (1499, \<lparr>lex_state =
       138, external_lex_state = 2\<rparr>)]"

definition mozjs_lex_modes_10 :: "(nat \<times> TSLexMode) list" where
  "mozjs_lex_modes_10 =
    [(1500, \<lparr>lex_state = 138, external_lex_state = 2\<rparr>), (1501, \<lparr>lex_state =
      138, external_lex_state = 2\<rparr>),
     (1502, \<lparr>lex_state = 138, external_lex_state = 2\<rparr>), (1503, \<lparr>lex_state =
       138, external_lex_state = 2\<rparr>),
     (1504, \<lparr>lex_state = 138, external_lex_state = 2\<rparr>), (1505, \<lparr>lex_state =
       138, external_lex_state = 2\<rparr>),
     (1506, \<lparr>lex_state = 138, external_lex_state = 2\<rparr>), (1507, \<lparr>lex_state =
       138, external_lex_state = 5\<rparr>),
     (1508, \<lparr>lex_state = 138, external_lex_state = 2\<rparr>), (1509, \<lparr>lex_state =
       138, external_lex_state = 2\<rparr>),
     (1510, \<lparr>lex_state = 138, external_lex_state = 5\<rparr>), (1511, \<lparr>lex_state =
       138, external_lex_state = 2\<rparr>),
     (1512, \<lparr>lex_state = 138, external_lex_state = 2\<rparr>), (1513, \<lparr>lex_state =
       138, external_lex_state = 2\<rparr>),
     (1514, \<lparr>lex_state = 138, external_lex_state = 2\<rparr>), (1515, \<lparr>lex_state =
       138, external_lex_state = 5\<rparr>),
     (1516, \<lparr>lex_state = 138, external_lex_state = 2\<rparr>), (1517, \<lparr>lex_state =
       138, external_lex_state = 2\<rparr>),
     (1518, \<lparr>lex_state = 138, external_lex_state = 2\<rparr>), (1519, \<lparr>lex_state =
       138, external_lex_state = 2\<rparr>),
     (1520, \<lparr>lex_state = 138, external_lex_state = 2\<rparr>), (1521, \<lparr>lex_state =
       138, external_lex_state = 2\<rparr>),
     (1522, \<lparr>lex_state = 138, external_lex_state = 2\<rparr>), (1523, \<lparr>lex_state =
       138, external_lex_state = 2\<rparr>),
     (1524, \<lparr>lex_state = 138, external_lex_state = 2\<rparr>), (1525, \<lparr>lex_state =
       138, external_lex_state = 2\<rparr>),
     (1526, \<lparr>lex_state = 138, external_lex_state = 2\<rparr>), (1527, \<lparr>lex_state =
       138, external_lex_state = 2\<rparr>),
     (1528, \<lparr>lex_state = 138, external_lex_state = 2\<rparr>), (1529, \<lparr>lex_state =
       138, external_lex_state = 2\<rparr>),
     (1530, \<lparr>lex_state = 138, external_lex_state = 2\<rparr>), (1531, \<lparr>lex_state =
       138, external_lex_state = 2\<rparr>),
     (1532, \<lparr>lex_state = 138, external_lex_state = 2\<rparr>), (1533, \<lparr>lex_state =
       138, external_lex_state = 2\<rparr>),
     (1534, \<lparr>lex_state = 138, external_lex_state = 5\<rparr>), (1535, \<lparr>lex_state =
       138, external_lex_state = 2\<rparr>),
     (1536, \<lparr>lex_state = 138, external_lex_state = 2\<rparr>), (1537, \<lparr>lex_state =
       138, external_lex_state = 2\<rparr>),
     (1538, \<lparr>lex_state = 138, external_lex_state = 2\<rparr>), (1539, \<lparr>lex_state =
       138, external_lex_state = 2\<rparr>),
     (1540, \<lparr>lex_state = 138, external_lex_state = 2\<rparr>), (1541, \<lparr>lex_state =
       138, external_lex_state = 2\<rparr>),
     (1542, \<lparr>lex_state = 138, external_lex_state = 2\<rparr>), (1543, \<lparr>lex_state =
       138, external_lex_state = 2\<rparr>),
     (1544, \<lparr>lex_state = 138, external_lex_state = 2\<rparr>), (1545, \<lparr>lex_state =
       138, external_lex_state = 2\<rparr>),
     (1546, \<lparr>lex_state = 138, external_lex_state = 2\<rparr>), (1547, \<lparr>lex_state =
       138, external_lex_state = 2\<rparr>),
     (1548, \<lparr>lex_state = 138, external_lex_state = 2\<rparr>), (1549, \<lparr>lex_state =
       138, external_lex_state = 2\<rparr>),
     (1550, \<lparr>lex_state = 138, external_lex_state = 2\<rparr>), (1551, \<lparr>lex_state =
       138, external_lex_state = 2\<rparr>),
     (1552, \<lparr>lex_state = 138, external_lex_state = 2\<rparr>), (1553, \<lparr>lex_state =
       138, external_lex_state = 2\<rparr>),
     (1554, \<lparr>lex_state = 138, external_lex_state = 2\<rparr>), (1555, \<lparr>lex_state =
       138, external_lex_state = 2\<rparr>),
     (1556, \<lparr>lex_state = 138, external_lex_state = 2\<rparr>), (1557, \<lparr>lex_state =
       138, external_lex_state = 2\<rparr>),
     (1558, \<lparr>lex_state = 138, external_lex_state = 5\<rparr>), (1559, \<lparr>lex_state =
       138, external_lex_state = 2\<rparr>),
     (1560, \<lparr>lex_state = 138, external_lex_state = 2\<rparr>), (1561, \<lparr>lex_state =
       138, external_lex_state = 2\<rparr>),
     (1562, \<lparr>lex_state = 138, external_lex_state = 2\<rparr>), (1563, \<lparr>lex_state =
       138, external_lex_state = 2\<rparr>),
     (1564, \<lparr>lex_state = 138, external_lex_state = 5\<rparr>), (1565, \<lparr>lex_state =
       138, external_lex_state = 2\<rparr>),
     (1566, \<lparr>lex_state = 138, external_lex_state = 2\<rparr>), (1567, \<lparr>lex_state =
       138, external_lex_state = 2\<rparr>),
     (1568, \<lparr>lex_state = 138, external_lex_state = 2\<rparr>), (1569, \<lparr>lex_state =
       138, external_lex_state = 2\<rparr>),
     (1570, \<lparr>lex_state = 138, external_lex_state = 2\<rparr>), (1571, \<lparr>lex_state =
       138, external_lex_state = 2\<rparr>),
     (1572, \<lparr>lex_state = 138, external_lex_state = 2\<rparr>), (1573, \<lparr>lex_state =
       138, external_lex_state = 2\<rparr>),
     (1574, \<lparr>lex_state = 138, external_lex_state = 2\<rparr>), (1575, \<lparr>lex_state =
       138, external_lex_state = 2\<rparr>),
     (1576, \<lparr>lex_state = 138, external_lex_state = 2\<rparr>), (1577, \<lparr>lex_state =
       138, external_lex_state = 2\<rparr>),
     (1578, \<lparr>lex_state = 138, external_lex_state = 2\<rparr>), (1579, \<lparr>lex_state =
       138, external_lex_state = 2\<rparr>),
     (1580, \<lparr>lex_state = 138, external_lex_state = 2\<rparr>), (1581, \<lparr>lex_state =
       138, external_lex_state = 2\<rparr>),
     (1582, \<lparr>lex_state = 138, external_lex_state = 2\<rparr>), (1583, \<lparr>lex_state =
       138, external_lex_state = 2\<rparr>),
     (1584, \<lparr>lex_state = 138, external_lex_state = 2\<rparr>), (1585, \<lparr>lex_state =
       138, external_lex_state = 2\<rparr>),
     (1586, \<lparr>lex_state = 138, external_lex_state = 2\<rparr>), (1587, \<lparr>lex_state =
       138, external_lex_state = 2\<rparr>),
     (1588, \<lparr>lex_state = 13, external_lex_state = 2\<rparr>), (1589, \<lparr>lex_state =
       138, external_lex_state = 2\<rparr>),
     (1590, \<lparr>lex_state = 138, external_lex_state = 2\<rparr>), (1591, \<lparr>lex_state =
       138, external_lex_state = 2\<rparr>),
     (1592, \<lparr>lex_state = 138, external_lex_state = 2\<rparr>), (1593, \<lparr>lex_state =
       138, external_lex_state = 2\<rparr>),
     (1594, \<lparr>lex_state = 138, external_lex_state = 2\<rparr>), (1595, \<lparr>lex_state =
       138, external_lex_state = 2\<rparr>),
     (1596, \<lparr>lex_state = 138, external_lex_state = 2\<rparr>), (1597, \<lparr>lex_state =
       138, external_lex_state = 2\<rparr>),
     (1598, \<lparr>lex_state = 138, external_lex_state = 2\<rparr>), (1599, \<lparr>lex_state =
       138, external_lex_state = 2\<rparr>),
     (1600, \<lparr>lex_state = 138, external_lex_state = 2\<rparr>), (1601, \<lparr>lex_state =
       138, external_lex_state = 2\<rparr>),
     (1602, \<lparr>lex_state = 138, external_lex_state = 2\<rparr>), (1603, \<lparr>lex_state =
       138, external_lex_state = 2\<rparr>),
     (1604, \<lparr>lex_state = 138, external_lex_state = 2\<rparr>), (1605, \<lparr>lex_state =
       138, external_lex_state = 2\<rparr>),
     (1606, \<lparr>lex_state = 138, external_lex_state = 2\<rparr>), (1607, \<lparr>lex_state =
       138, external_lex_state = 2\<rparr>),
     (1608, \<lparr>lex_state = 138, external_lex_state = 2\<rparr>), (1609, \<lparr>lex_state =
       138, external_lex_state = 5\<rparr>),
     (1610, \<lparr>lex_state = 138, external_lex_state = 2\<rparr>), (1611, \<lparr>lex_state =
       138, external_lex_state = 2\<rparr>),
     (1612, \<lparr>lex_state = 138, external_lex_state = 2\<rparr>), (1613, \<lparr>lex_state =
       138, external_lex_state = 2\<rparr>),
     (1614, \<lparr>lex_state = 138, external_lex_state = 2\<rparr>), (1615, \<lparr>lex_state =
       138, external_lex_state = 2\<rparr>),
     (1616, \<lparr>lex_state = 138, external_lex_state = 2\<rparr>), (1617, \<lparr>lex_state =
       13, external_lex_state = 2\<rparr>),
     (1618, \<lparr>lex_state = 138, external_lex_state = 2\<rparr>), (1619, \<lparr>lex_state =
       138, external_lex_state = 5\<rparr>),
     (1620, \<lparr>lex_state = 138, external_lex_state = 2\<rparr>), (1621, \<lparr>lex_state =
       138, external_lex_state = 2\<rparr>),
     (1622, \<lparr>lex_state = 138, external_lex_state = 2\<rparr>), (1623, \<lparr>lex_state =
       138, external_lex_state = 2\<rparr>),
     (1624, \<lparr>lex_state = 138, external_lex_state = 2\<rparr>), (1625, \<lparr>lex_state =
       138, external_lex_state = 2\<rparr>),
     (1626, \<lparr>lex_state = 138, external_lex_state = 2\<rparr>), (1627, \<lparr>lex_state =
       138, external_lex_state = 2\<rparr>),
     (1628, \<lparr>lex_state = 138, external_lex_state = 2\<rparr>), (1629, \<lparr>lex_state =
       138, external_lex_state = 2\<rparr>),
     (1630, \<lparr>lex_state = 138, external_lex_state = 2\<rparr>), (1631, \<lparr>lex_state =
       138, external_lex_state = 2\<rparr>),
     (1632, \<lparr>lex_state = 13, external_lex_state = 2\<rparr>), (1633, \<lparr>lex_state =
       138, external_lex_state = 2\<rparr>),
     (1634, \<lparr>lex_state = 13, external_lex_state = 2\<rparr>), (1635, \<lparr>lex_state =
       138, external_lex_state = 2\<rparr>),
     (1636, \<lparr>lex_state = 138, external_lex_state = 2\<rparr>), (1637, \<lparr>lex_state =
       138, external_lex_state = 2\<rparr>),
     (1638, \<lparr>lex_state = 138, external_lex_state = 2\<rparr>), (1639, \<lparr>lex_state =
       138, external_lex_state = 2\<rparr>),
     (1640, \<lparr>lex_state = 138, external_lex_state = 2\<rparr>), (1641, \<lparr>lex_state =
       138, external_lex_state = 2\<rparr>),
     (1642, \<lparr>lex_state = 138, external_lex_state = 2\<rparr>), (1643, \<lparr>lex_state =
       138, external_lex_state = 2\<rparr>),
     (1644, \<lparr>lex_state = 138, external_lex_state = 2\<rparr>), (1645, \<lparr>lex_state =
       138, external_lex_state = 2\<rparr>),
     (1646, \<lparr>lex_state = 138, external_lex_state = 2\<rparr>), (1647, \<lparr>lex_state =
       138, external_lex_state = 2\<rparr>),
     (1648, \<lparr>lex_state = 138, external_lex_state = 2\<rparr>), (1649, \<lparr>lex_state =
       138, external_lex_state = 2\<rparr>)]"

definition mozjs_lex_modes_11 :: "(nat \<times> TSLexMode) list" where
  "mozjs_lex_modes_11 =
    [(1650, \<lparr>lex_state = 138, external_lex_state = 2\<rparr>), (1651, \<lparr>lex_state =
      138, external_lex_state = 2\<rparr>),
     (1652, \<lparr>lex_state = 138, external_lex_state = 2\<rparr>), (1653, \<lparr>lex_state =
       138, external_lex_state = 2\<rparr>),
     (1654, \<lparr>lex_state = 138, external_lex_state = 2\<rparr>), (1655, \<lparr>lex_state =
       138, external_lex_state = 2\<rparr>),
     (1656, \<lparr>lex_state = 138, external_lex_state = 2\<rparr>), (1657, \<lparr>lex_state =
       138, external_lex_state = 2\<rparr>),
     (1658, \<lparr>lex_state = 138, external_lex_state = 2\<rparr>), (1659, \<lparr>lex_state =
       138, external_lex_state = 2\<rparr>),
     (1660, \<lparr>lex_state = 138, external_lex_state = 2\<rparr>), (1661, \<lparr>lex_state =
       138, external_lex_state = 5\<rparr>),
     (1662, \<lparr>lex_state = 138, external_lex_state = 2\<rparr>), (1663, \<lparr>lex_state =
       138, external_lex_state = 2\<rparr>),
     (1664, \<lparr>lex_state = 138, external_lex_state = 2\<rparr>), (1665, \<lparr>lex_state =
       138, external_lex_state = 2\<rparr>),
     (1666, \<lparr>lex_state = 138, external_lex_state = 5\<rparr>), (1667, \<lparr>lex_state =
       138, external_lex_state = 5\<rparr>),
     (1668, \<lparr>lex_state = 138, external_lex_state = 5\<rparr>), (1669, \<lparr>lex_state =
       138, external_lex_state = 2\<rparr>),
     (1670, \<lparr>lex_state = 138, external_lex_state = 2\<rparr>), (1671, \<lparr>lex_state =
       138, external_lex_state = 2\<rparr>),
     (1672, \<lparr>lex_state = 138, external_lex_state = 2\<rparr>), (1673, \<lparr>lex_state =
       138, external_lex_state = 2\<rparr>),
     (1674, \<lparr>lex_state = 138, external_lex_state = 2\<rparr>), (1675, \<lparr>lex_state =
       138, external_lex_state = 2\<rparr>),
     (1676, \<lparr>lex_state = 138, external_lex_state = 2\<rparr>), (1677, \<lparr>lex_state =
       138, external_lex_state = 2\<rparr>),
     (1678, \<lparr>lex_state = 138, external_lex_state = 2\<rparr>), (1679, \<lparr>lex_state =
       138, external_lex_state = 2\<rparr>),
     (1680, \<lparr>lex_state = 138, external_lex_state = 2\<rparr>), (1681, \<lparr>lex_state =
       138, external_lex_state = 2\<rparr>),
     (1682, \<lparr>lex_state = 138, external_lex_state = 2\<rparr>), (1683, \<lparr>lex_state =
       138, external_lex_state = 2\<rparr>),
     (1684, \<lparr>lex_state = 138, external_lex_state = 2\<rparr>), (1685, \<lparr>lex_state =
       138, external_lex_state = 5\<rparr>),
     (1686, \<lparr>lex_state = 138, external_lex_state = 5\<rparr>), (1687, \<lparr>lex_state =
       138, external_lex_state = 2\<rparr>),
     (1688, \<lparr>lex_state = 138, external_lex_state = 2\<rparr>), (1689, \<lparr>lex_state =
       138, external_lex_state = 2\<rparr>),
     (1690, \<lparr>lex_state = 138, external_lex_state = 2\<rparr>), (1691, \<lparr>lex_state =
       138, external_lex_state = 2\<rparr>),
     (1692, \<lparr>lex_state = 138, external_lex_state = 2\<rparr>), (1693, \<lparr>lex_state =
       138, external_lex_state = 2\<rparr>),
     (1694, \<lparr>lex_state = 138, external_lex_state = 2\<rparr>), (1695, \<lparr>lex_state =
       138, external_lex_state = 2\<rparr>),
     (1696, \<lparr>lex_state = 138, external_lex_state = 2\<rparr>), (1697, \<lparr>lex_state =
       138, external_lex_state = 2\<rparr>),
     (1698, \<lparr>lex_state = 138, external_lex_state = 2\<rparr>), (1699, \<lparr>lex_state =
       138, external_lex_state = 2\<rparr>),
     (1700, \<lparr>lex_state = 138, external_lex_state = 2\<rparr>), (1701, \<lparr>lex_state =
       138, external_lex_state = 2\<rparr>),
     (1702, \<lparr>lex_state = 138, external_lex_state = 2\<rparr>), (1703, \<lparr>lex_state =
       138, external_lex_state = 2\<rparr>),
     (1704, \<lparr>lex_state = 138, external_lex_state = 2\<rparr>), (1705, \<lparr>lex_state =
       138, external_lex_state = 2\<rparr>),
     (1706, \<lparr>lex_state = 138, external_lex_state = 2\<rparr>), (1707, \<lparr>lex_state =
       138, external_lex_state = 2\<rparr>),
     (1708, \<lparr>lex_state = 138, external_lex_state = 2\<rparr>), (1709, \<lparr>lex_state =
       138, external_lex_state = 2\<rparr>),
     (1710, \<lparr>lex_state = 138, external_lex_state = 2\<rparr>), (1711, \<lparr>lex_state =
       138, external_lex_state = 2\<rparr>),
     (1712, \<lparr>lex_state = 138, external_lex_state = 2\<rparr>), (1713, \<lparr>lex_state =
       138, external_lex_state = 2\<rparr>),
     (1714, \<lparr>lex_state = 138, external_lex_state = 2\<rparr>), (1715, \<lparr>lex_state =
       138, external_lex_state = 2\<rparr>),
     (1716, \<lparr>lex_state = 138, external_lex_state = 2\<rparr>), (1717, \<lparr>lex_state =
       138, external_lex_state = 2\<rparr>),
     (1718, \<lparr>lex_state = 138, external_lex_state = 2\<rparr>), (1719, \<lparr>lex_state =
       138, external_lex_state = 5\<rparr>),
     (1720, \<lparr>lex_state = 138, external_lex_state = 2\<rparr>), (1721, \<lparr>lex_state =
       138, external_lex_state = 2\<rparr>),
     (1722, \<lparr>lex_state = 138, external_lex_state = 2\<rparr>), (1723, \<lparr>lex_state =
       138, external_lex_state = 2\<rparr>),
     (1724, \<lparr>lex_state = 138, external_lex_state = 2\<rparr>), (1725, \<lparr>lex_state =
       138, external_lex_state = 2\<rparr>),
     (1726, \<lparr>lex_state = 138, external_lex_state = 2\<rparr>), (1727, \<lparr>lex_state =
       138, external_lex_state = 2\<rparr>),
     (1728, \<lparr>lex_state = 138, external_lex_state = 2\<rparr>), (1729, \<lparr>lex_state =
       138, external_lex_state = 2\<rparr>),
     (1730, \<lparr>lex_state = 138, external_lex_state = 2\<rparr>), (1731, \<lparr>lex_state =
       44, external_lex_state = 2\<rparr>),
     (1732, \<lparr>lex_state = 138, external_lex_state = 2\<rparr>), (1733, \<lparr>lex_state =
       138, external_lex_state = 2\<rparr>),
     (1734, \<lparr>lex_state = 138, external_lex_state = 2\<rparr>), (1735, \<lparr>lex_state =
       138, external_lex_state = 2\<rparr>),
     (1736, \<lparr>lex_state = 138, external_lex_state = 2\<rparr>), (1737, \<lparr>lex_state =
       138, external_lex_state = 2\<rparr>),
     (1738, \<lparr>lex_state = 138, external_lex_state = 2\<rparr>), (1739, \<lparr>lex_state =
       138, external_lex_state = 5\<rparr>),
     (1740, \<lparr>lex_state = 138, external_lex_state = 5\<rparr>), (1741, \<lparr>lex_state =
       138, external_lex_state = 5\<rparr>),
     (1742, \<lparr>lex_state = 138, external_lex_state = 2\<rparr>), (1743, \<lparr>lex_state =
       138, external_lex_state = 5\<rparr>),
     (1744, \<lparr>lex_state = 138, external_lex_state = 5\<rparr>), (1745, \<lparr>lex_state =
       138, external_lex_state = 2\<rparr>),
     (1746, \<lparr>lex_state = 138, external_lex_state = 5\<rparr>), (1747, \<lparr>lex_state =
       138, external_lex_state = 2\<rparr>),
     (1748, \<lparr>lex_state = 138, external_lex_state = 5\<rparr>), (1749, \<lparr>lex_state =
       138, external_lex_state = 2\<rparr>),
     (1750, \<lparr>lex_state = 138, external_lex_state = 2\<rparr>), (1751, \<lparr>lex_state =
       138, external_lex_state = 2\<rparr>),
     (1752, \<lparr>lex_state = 138, external_lex_state = 5\<rparr>), (1753, \<lparr>lex_state =
       138, external_lex_state = 2\<rparr>),
     (1754, \<lparr>lex_state = 138, external_lex_state = 2\<rparr>), (1755, \<lparr>lex_state =
       138, external_lex_state = 2\<rparr>),
     (1756, \<lparr>lex_state = 138, external_lex_state = 2\<rparr>), (1757, \<lparr>lex_state =
       138, external_lex_state = 2\<rparr>),
     (1758, \<lparr>lex_state = 138, external_lex_state = 2\<rparr>), (1759, \<lparr>lex_state =
       138, external_lex_state = 2\<rparr>),
     (1760, \<lparr>lex_state = 12, external_lex_state = 9\<rparr>), (1761, \<lparr>lex_state =
       138, external_lex_state = 2\<rparr>),
     (1762, \<lparr>lex_state = 138, external_lex_state = 2\<rparr>), (1763, \<lparr>lex_state =
       138, external_lex_state = 2\<rparr>),
     (1764, \<lparr>lex_state = 138, external_lex_state = 2\<rparr>), (1765, \<lparr>lex_state =
       138, external_lex_state = 2\<rparr>),
     (1766, \<lparr>lex_state = 138, external_lex_state = 2\<rparr>), (1767, \<lparr>lex_state =
       138, external_lex_state = 2\<rparr>),
     (1768, \<lparr>lex_state = 138, external_lex_state = 2\<rparr>), (1769, \<lparr>lex_state =
       138, external_lex_state = 2\<rparr>),
     (1770, \<lparr>lex_state = 138, external_lex_state = 2\<rparr>), (1771, \<lparr>lex_state =
       138, external_lex_state = 2\<rparr>),
     (1772, \<lparr>lex_state = 138, external_lex_state = 2\<rparr>), (1773, \<lparr>lex_state =
       12, external_lex_state = 9\<rparr>),
     (1774, \<lparr>lex_state = 138, external_lex_state = 2\<rparr>), (1775, \<lparr>lex_state =
       138, external_lex_state = 2\<rparr>),
     (1776, \<lparr>lex_state = 138, external_lex_state = 2\<rparr>), (1777, \<lparr>lex_state =
       138, external_lex_state = 2\<rparr>),
     (1778, \<lparr>lex_state = 138, external_lex_state = 2\<rparr>), (1779, \<lparr>lex_state =
       138, external_lex_state = 2\<rparr>),
     (1780, \<lparr>lex_state = 138, external_lex_state = 2\<rparr>), (1781, \<lparr>lex_state =
       138, external_lex_state = 2\<rparr>),
     (1782, \<lparr>lex_state = 138, external_lex_state = 2\<rparr>), (1783, \<lparr>lex_state =
       138, external_lex_state = 2\<rparr>),
     (1784, \<lparr>lex_state = 138, external_lex_state = 2\<rparr>), (1785, \<lparr>lex_state =
       138, external_lex_state = 2\<rparr>),
     (1786, \<lparr>lex_state = 138, external_lex_state = 2\<rparr>), (1787, \<lparr>lex_state =
       138, external_lex_state = 2\<rparr>),
     (1788, \<lparr>lex_state = 138, external_lex_state = 2\<rparr>), (1789, \<lparr>lex_state =
       138, external_lex_state = 2\<rparr>),
     (1790, \<lparr>lex_state = 138, external_lex_state = 2\<rparr>), (1791, \<lparr>lex_state =
       138, external_lex_state = 2\<rparr>),
     (1792, \<lparr>lex_state = 138, external_lex_state = 2\<rparr>), (1793, \<lparr>lex_state =
       138, external_lex_state = 2\<rparr>),
     (1794, \<lparr>lex_state = 12, external_lex_state = 9\<rparr>), (1795, \<lparr>lex_state =
       138, external_lex_state = 2\<rparr>),
     (1796, \<lparr>lex_state = 138, external_lex_state = 2\<rparr>), (1797, \<lparr>lex_state =
       138, external_lex_state = 2\<rparr>),
     (1798, \<lparr>lex_state = 138, external_lex_state = 2\<rparr>), (1799, \<lparr>lex_state =
       138, external_lex_state = 2\<rparr>)]"

definition mozjs_lex_modes_12 :: "(nat \<times> TSLexMode) list" where
  "mozjs_lex_modes_12 =
    [(1800, \<lparr>lex_state = 138, external_lex_state = 2\<rparr>), (1801, \<lparr>lex_state =
      45, external_lex_state = 2\<rparr>),
     (1802, \<lparr>lex_state = 138, external_lex_state = 2\<rparr>), (1803, \<lparr>lex_state =
       138, external_lex_state = 2\<rparr>),
     (1804, \<lparr>lex_state = 138, external_lex_state = 2\<rparr>), (1805, \<lparr>lex_state =
       138, external_lex_state = 2\<rparr>),
     (1806, \<lparr>lex_state = 138, external_lex_state = 2\<rparr>), (1807, \<lparr>lex_state =
       138, external_lex_state = 2\<rparr>),
     (1808, \<lparr>lex_state = 138, external_lex_state = 2\<rparr>), (1809, \<lparr>lex_state =
       138, external_lex_state = 2\<rparr>),
     (1810, \<lparr>lex_state = 138, external_lex_state = 2\<rparr>), (1811, \<lparr>lex_state =
       138, external_lex_state = 2\<rparr>),
     (1812, \<lparr>lex_state = 138, external_lex_state = 2\<rparr>), (1813, \<lparr>lex_state =
       138, external_lex_state = 2\<rparr>),
     (1814, \<lparr>lex_state = 138, external_lex_state = 2\<rparr>), (1815, \<lparr>lex_state =
       138, external_lex_state = 2\<rparr>),
     (1816, \<lparr>lex_state = 138, external_lex_state = 2\<rparr>), (1817, \<lparr>lex_state =
       138, external_lex_state = 2\<rparr>),
     (1818, \<lparr>lex_state = 138, external_lex_state = 2\<rparr>), (1819, \<lparr>lex_state =
       138, external_lex_state = 2\<rparr>),
     (1820, \<lparr>lex_state = 138, external_lex_state = 2\<rparr>), (1821, \<lparr>lex_state =
       138, external_lex_state = 2\<rparr>),
     (1822, \<lparr>lex_state = 138, external_lex_state = 2\<rparr>), (1823, \<lparr>lex_state =
       45, external_lex_state = 2\<rparr>),
     (1824, \<lparr>lex_state = 138, external_lex_state = 2\<rparr>), (1825, \<lparr>lex_state =
       138, external_lex_state = 2\<rparr>),
     (1826, \<lparr>lex_state = 138, external_lex_state = 2\<rparr>), (1827, \<lparr>lex_state =
       138, external_lex_state = 2\<rparr>),
     (1828, \<lparr>lex_state = 138, external_lex_state = 2\<rparr>), (1829, \<lparr>lex_state =
       138, external_lex_state = 2\<rparr>),
     (1830, \<lparr>lex_state = 138, external_lex_state = 2\<rparr>), (1831, \<lparr>lex_state =
       138, external_lex_state = 2\<rparr>),
     (1832, \<lparr>lex_state = 138, external_lex_state = 2\<rparr>), (1833, \<lparr>lex_state =
       138, external_lex_state = 2\<rparr>),
     (1834, \<lparr>lex_state = 138, external_lex_state = 2\<rparr>), (1835, \<lparr>lex_state =
       12, external_lex_state = 9\<rparr>),
     (1836, \<lparr>lex_state = 138, external_lex_state = 2\<rparr>), (1837, \<lparr>lex_state =
       138, external_lex_state = 2\<rparr>),
     (1838, \<lparr>lex_state = 138, external_lex_state = 2\<rparr>), (1839, \<lparr>lex_state =
       138, external_lex_state = 2\<rparr>),
     (1840, \<lparr>lex_state = 138, external_lex_state = 2\<rparr>), (1841, \<lparr>lex_state =
       138, external_lex_state = 2\<rparr>),
     (1842, \<lparr>lex_state = 138, external_lex_state = 2\<rparr>), (1843, \<lparr>lex_state =
       138, external_lex_state = 2\<rparr>),
     (1844, \<lparr>lex_state = 138, external_lex_state = 2\<rparr>), (1845, \<lparr>lex_state =
       138, external_lex_state = 2\<rparr>),
     (1846, \<lparr>lex_state = 138, external_lex_state = 2\<rparr>), (1847, \<lparr>lex_state =
       138, external_lex_state = 2\<rparr>),
     (1848, \<lparr>lex_state = 138, external_lex_state = 2\<rparr>), (1849, \<lparr>lex_state =
       138, external_lex_state = 2\<rparr>),
     (1850, \<lparr>lex_state = 138, external_lex_state = 2\<rparr>), (1851, \<lparr>lex_state =
       138, external_lex_state = 2\<rparr>),
     (1852, \<lparr>lex_state = 138, external_lex_state = 2\<rparr>), (1853, \<lparr>lex_state =
       138, external_lex_state = 2\<rparr>),
     (1854, \<lparr>lex_state = 45, external_lex_state = 2\<rparr>), (1855, \<lparr>lex_state =
       138, external_lex_state = 2\<rparr>),
     (1856, \<lparr>lex_state = 138, external_lex_state = 2\<rparr>), (1857, \<lparr>lex_state =
       45, external_lex_state = 2\<rparr>),
     (1858, \<lparr>lex_state = 138, external_lex_state = 2\<rparr>), (1859, \<lparr>lex_state =
       138, external_lex_state = 2\<rparr>),
     (1860, \<lparr>lex_state = 138, external_lex_state = 2\<rparr>), (1861, \<lparr>lex_state =
       138, external_lex_state = 2\<rparr>),
     (1862, \<lparr>lex_state = 138, external_lex_state = 2\<rparr>), (1863, \<lparr>lex_state =
       138, external_lex_state = 2\<rparr>),
     (1864, \<lparr>lex_state = 138, external_lex_state = 2\<rparr>), (1865, \<lparr>lex_state =
       138, external_lex_state = 2\<rparr>),
     (1866, \<lparr>lex_state = 138, external_lex_state = 2\<rparr>), (1867, \<lparr>lex_state =
       138, external_lex_state = 2\<rparr>),
     (1868, \<lparr>lex_state = 138, external_lex_state = 2\<rparr>), (1869, \<lparr>lex_state =
       138, external_lex_state = 2\<rparr>),
     (1870, \<lparr>lex_state = 138, external_lex_state = 2\<rparr>), (1871, \<lparr>lex_state =
       138, external_lex_state = 2\<rparr>),
     (1872, \<lparr>lex_state = 138, external_lex_state = 2\<rparr>), (1873, \<lparr>lex_state =
       138, external_lex_state = 2\<rparr>),
     (1874, \<lparr>lex_state = 138, external_lex_state = 2\<rparr>), (1875, \<lparr>lex_state =
       138, external_lex_state = 2\<rparr>),
     (1876, \<lparr>lex_state = 138, external_lex_state = 2\<rparr>), (1877, \<lparr>lex_state =
       138, external_lex_state = 2\<rparr>),
     (1878, \<lparr>lex_state = 138, external_lex_state = 2\<rparr>)]"

definition mozjs_ts_lex_modes :: "(nat \<times> TSLexMode) list" where
  "mozjs_ts_lex_modes = mozjs_lex_modes_0 @ mozjs_lex_modes_1 @ mozjs_lex_modes_2 @
    mozjs_lex_modes_3 @ mozjs_lex_modes_4 @ mozjs_lex_modes_5 @ mozjs_lex_modes_6 @
    mozjs_lex_modes_7 @ mozjs_lex_modes_8 @ mozjs_lex_modes_9 @ mozjs_lex_modes_10 @
    mozjs_lex_modes_11 @ mozjs_lex_modes_12"

section \<open>External tokens\<close>

abbreviation (input) mozjs_ts_external_token__automatic_semicolon :: nat where "mozjs_ts_external_token__automatic_semicolon \<equiv> 0"
abbreviation (input) mozjs_ts_external_token__template_chars :: nat where "mozjs_ts_external_token__template_chars \<equiv> 1"
abbreviation (input) mozjs_ts_external_token__ternary_qmark :: nat where "mozjs_ts_external_token__ternary_qmark \<equiv> 2"
abbreviation (input) mozjs_ts_external_token_html_comment :: nat where "mozjs_ts_external_token_html_comment \<equiv> 3"
abbreviation (input) mozjs_ts_external_token_PIPE_PIPE :: nat where "mozjs_ts_external_token_PIPE_PIPE \<equiv> 4"
abbreviation (input) mozjs_ts_external_token_escape_sequence :: nat where "mozjs_ts_external_token_escape_sequence \<equiv> 5"
abbreviation (input) mozjs_ts_external_token_regex_pattern :: nat where "mozjs_ts_external_token_regex_pattern \<equiv> 6"
abbreviation (input) mozjs_ts_external_token_jsx_text :: nat where "mozjs_ts_external_token_jsx_text \<equiv> 7"

definition mozjs_ts_external_scanner_symbol_map :: "(nat \<times> TSSymbol) list" where
  "mozjs_ts_external_scanner_symbol_map =
    [(mozjs_ts_external_token__automatic_semicolon, mozjs_sym__automatic_semicolon),
     (mozjs_ts_external_token__template_chars, mozjs_sym__template_chars),
     (mozjs_ts_external_token__ternary_qmark, mozjs_sym__ternary_qmark),
     (mozjs_ts_external_token_html_comment, mozjs_sym_html_comment),
     (mozjs_ts_external_token_PIPE_PIPE, mozjs_anon_sym_PIPE_PIPE),
     (mozjs_ts_external_token_escape_sequence, mozjs_sym_escape_sequence),
     (mozjs_ts_external_token_regex_pattern, mozjs_sym_regex_pattern),
     (mozjs_ts_external_token_jsx_text, mozjs_sym_jsx_text)]"

definition mozjs_ts_external_scanner_states :: "(nat \<times> (nat \<times> bool) list) list" where
  "mozjs_ts_external_scanner_states =
    [(1, [(mozjs_ts_external_token__automatic_semicolon, True),
      (mozjs_ts_external_token__template_chars, True), (mozjs_ts_external_token__ternary_qmark,
      True), (mozjs_ts_external_token_html_comment, True), (mozjs_ts_external_token_PIPE_PIPE,
      True), (mozjs_ts_external_token_escape_sequence, True), (mozjs_ts_external_token_jsx_text,
      True)]),
     (2, [(mozjs_ts_external_token_html_comment, True)]),
     (3, [(mozjs_ts_external_token__automatic_semicolon, True),
       (mozjs_ts_external_token__ternary_qmark, True), (mozjs_ts_external_token_html_comment,
       True), (mozjs_ts_external_token_PIPE_PIPE, True)]),
     (4, [(mozjs_ts_external_token__ternary_qmark, True), (mozjs_ts_external_token_html_comment,
       True), (mozjs_ts_external_token_PIPE_PIPE, True)]),
     (5, [(mozjs_ts_external_token__automatic_semicolon, True),
       (mozjs_ts_external_token_html_comment, True)]),
     (6, [(mozjs_ts_external_token_html_comment, True), (mozjs_ts_external_token_jsx_text,
       True)]),
     (7, [(mozjs_ts_external_token__template_chars, True), (mozjs_ts_external_token_html_comment,
       True), (mozjs_ts_external_token_escape_sequence, True)]),
     (8, [(mozjs_ts_external_token_html_comment, True), (mozjs_ts_external_token_escape_sequence,
       True)]),
     (9, [(mozjs_ts_external_token_html_comment, True), (mozjs_ts_external_token_regex_pattern,
       True)])]"

section \<open>Reading the lex modes\<close>

lemma mozjs_modes_numbered:
  "numbered 0 mozjs_lex_modes_0 150"
  "numbered 150 mozjs_lex_modes_1 300"
  "numbered 300 mozjs_lex_modes_2 450"
  "numbered 450 mozjs_lex_modes_3 600"
  "numbered 600 mozjs_lex_modes_4 750"
  "numbered 750 mozjs_lex_modes_5 900"
  "numbered 900 mozjs_lex_modes_6 1050"
  "numbered 1050 mozjs_lex_modes_7 1200"
  "numbered 1200 mozjs_lex_modes_8 1350"
  "numbered 1350 mozjs_lex_modes_9 1500"
  "numbered 1500 mozjs_lex_modes_10 1650"
  "numbered 1650 mozjs_lex_modes_11 1800"
  "numbered 1800 mozjs_lex_modes_12 1879"
  by (simp_all add: mozjs_lex_modes_0_def mozjs_lex_modes_1_def mozjs_lex_modes_2_def
    mozjs_lex_modes_3_def mozjs_lex_modes_4_def mozjs_lex_modes_5_def mozjs_lex_modes_6_def
    mozjs_lex_modes_7_def mozjs_lex_modes_8_def mozjs_lex_modes_9_def mozjs_lex_modes_10_def
    mozjs_lex_modes_11_def mozjs_lex_modes_12_def numbered_def upt_rec)

lemma mozjs_modes_states: "numbered 0 mozjs_ts_lex_modes mozjs_STATE_COUNT"
  unfolding mozjs_ts_lex_modes_def by ((rule numbered_append mozjs_modes_numbered)+)

end
