(* ===== verification/Mozjs_Rows.thy ===== *)
theory Mozjs_Rows
  imports Mozjs_Lex Lr_Tables
begin

text \<open>
  The parse table of the large states of the JavaScript grammar (\<^verbatim>\<open>ts_parse_table\<close> of
  \<^verbatim>\<open>tree-sitter-mozjs/src/parser.c\<close>), one definition per row, as (symbol, value) pairs.
\<close>

section \<open>The rows\<close>

definition mozjs_parse_row_0 :: "(TSSymbol \<times> nat) list" where
  "mozjs_parse_row_0 =
    [(ts_builtin_sym_end, 1), (mozjs_sym_identifier, 1),
     (mozjs_sym_hash_bang_line, 1), (mozjs_anon_sym_export, 1),
     (mozjs_anon_sym_STAR, 1), (mozjs_anon_sym_default, 1),
     (mozjs_anon_sym_as, 1), (mozjs_anon_sym_LBRACE, 1),
     (mozjs_anon_sym_COMMA, 1), (mozjs_anon_sym_RBRACE, 1),
     (mozjs_anon_sym_import, 1), (mozjs_anon_sym_from, 1),
     (mozjs_anon_sym_with, 1), (mozjs_anon_sym_var, 1),
     (mozjs_anon_sym_let, 1), (mozjs_anon_sym_const, 1),
     (mozjs_anon_sym_using, 1), (mozjs_anon_sym_await, 1),
     (mozjs_anon_sym_of, 1), (mozjs_anon_sym_else, 1),
     (mozjs_anon_sym_if, 1), (mozjs_anon_sym_switch, 1),
     (mozjs_anon_sym_for, 1), (mozjs_anon_sym_LPAREN, 1),
     (mozjs_anon_sym_SEMI, 1), (mozjs_anon_sym_RPAREN, 1),
     (mozjs_anon_sym_in, 1), (mozjs_anon_sym_while, 1),
     (mozjs_anon_sym_do, 1), (mozjs_anon_sym_try, 1),
     (mozjs_anon_sym_break, 1), (mozjs_anon_sym_continue, 1),
     (mozjs_anon_sym_debugger, 1), (mozjs_anon_sym_return, 1),
     (mozjs_anon_sym_throw, 1), (mozjs_anon_sym_COLON, 1),
     (mozjs_anon_sym_case, 1), (mozjs_anon_sym_catch, 1),
     (mozjs_anon_sym_finally, 1), (mozjs_anon_sym_yield, 1),
     (mozjs_anon_sym_EQ, 1), (mozjs_anon_sym_LBRACK, 1),
     (mozjs_anon_sym_RBRACK, 1), (mozjs_anon_sym_LT, 1),
     (mozjs_anon_sym_GT, 1), (mozjs_anon_sym_DOT, 1),
     (mozjs_anon_sym_LT_SLASH, 1), (mozjs_anon_sym_DQUOTE, 1),
     (mozjs_anon_sym_SQUOTE, 1), (mozjs_anon_sym_class, 1),
     (mozjs_anon_sym_extends, 1), (mozjs_anon_sym_async, 1),
     (mozjs_anon_sym_function, 1), (mozjs_anon_sym_EQ_GT, 1),
     (mozjs_sym_optional_chain, 1), (mozjs_anon_sym_new, 1),
     (mozjs_anon_sym_PLUS_EQ, 1), (mozjs_anon_sym_DASH_EQ, 1),
     (mozjs_anon_sym_STAR_EQ, 1), (mozjs_anon_sym_SLASH_EQ, 1),
     (mozjs_anon_sym_PERCENT_EQ, 1), (mozjs_anon_sym_CARET_EQ, 1),
     (mozjs_anon_sym_AMP_EQ, 1), (mozjs_anon_sym_PIPE_EQ, 1),
     (mozjs_anon_sym_GT_GT_EQ, 1), (mozjs_anon_sym_GT_GT_GT_EQ, 1),
     (mozjs_anon_sym_LT_LT_EQ, 1), (mozjs_anon_sym_STAR_STAR_EQ, 1),
     (mozjs_anon_sym_AMP_AMP_EQ, 1), (mozjs_anon_sym_PIPE_PIPE_EQ, 1),
     (mozjs_anon_sym_QMARK_QMARK_EQ, 1), (mozjs_anon_sym_DOT_DOT_DOT, 1),
     (mozjs_anon_sym_AMP_AMP, 1), (mozjs_anon_sym_PIPE_PIPE, 1),
     (mozjs_anon_sym_GT_GT, 1), (mozjs_anon_sym_GT_GT_GT, 1),
     (mozjs_anon_sym_LT_LT, 1), (mozjs_anon_sym_AMP, 1),
     (mozjs_anon_sym_CARET, 1), (mozjs_anon_sym_PIPE, 1),
     (mozjs_anon_sym_PLUS, 1), (mozjs_anon_sym_DASH, 1),
     (mozjs_anon_sym_SLASH, 1), (mozjs_anon_sym_PERCENT, 1),
     (mozjs_anon_sym_STAR_STAR, 1), (mozjs_anon_sym_LT_EQ, 1),
     (mozjs_anon_sym_EQ_EQ, 1), (mozjs_anon_sym_EQ_EQ_EQ, 1),
     (mozjs_anon_sym_BANG_EQ, 1), (mozjs_anon_sym_BANG_EQ_EQ, 1),
     (mozjs_anon_sym_GT_EQ, 1), (mozjs_anon_sym_QMARK_QMARK, 1),
     (mozjs_anon_sym_instanceof, 1), (mozjs_anon_sym_BANG, 1),
     (mozjs_anon_sym_TILDE, 1), (mozjs_anon_sym_typeof, 1),
     (mozjs_anon_sym_void, 1), (mozjs_anon_sym_delete, 1),
     (mozjs_anon_sym_PLUS_PLUS, 1), (mozjs_anon_sym_DASH_DASH, 1),
     (mozjs_sym_escape_sequence, 1), (mozjs_sym_comment, 3),
     (mozjs_anon_sym_BQUOTE, 1), (mozjs_anon_sym_DOLLAR_LBRACE, 1),
     (mozjs_anon_sym_SLASH2, 1), (mozjs_sym_number, 1),
     (mozjs_sym_private_property_identifier, 1), (mozjs_anon_sym_target, 1),
     (mozjs_anon_sym_meta, 1), (mozjs_sym_this, 1),
     (mozjs_sym_super, 1), (mozjs_sym_true, 1),
     (mozjs_sym_false, 1), (mozjs_sym_null, 1),
     (mozjs_sym_undefined, 1), (mozjs_anon_sym_AT, 1),
     (mozjs_anon_sym_static, 1), (mozjs_aux_sym_method_definition_token1, 1),
     (mozjs_anon_sym_get, 1), (mozjs_anon_sym_set, 1),
     (mozjs_sym_preproc, 1), (mozjs_sym__automatic_semicolon, 1),
     (mozjs_sym__template_chars, 1), (mozjs_sym__ternary_qmark, 1),
     (mozjs_sym_html_comment, 5), (mozjs_sym_jsx_text, 1)]"

definition mozjs_parse_row_1 :: "(TSSymbol \<times> nat) list" where
  "mozjs_parse_row_1 =
    [(mozjs_sym_program, 1817), (mozjs_sym_export_statement, 422),
     (mozjs_sym_declaration, 422), (mozjs_sym_import, 1333),
     (mozjs_sym_import_statement, 422), (mozjs_sym_statement, 20),
     (mozjs_sym_expression_statement, 422), (mozjs_sym_variable_declaration, 427),
     (mozjs_sym_lexical_declaration, 427), (mozjs_sym_using_declaration, 427),
     (mozjs_sym_statement_block, 422), (mozjs_sym_if_statement, 422),
     (mozjs_sym_switch_statement, 422), (mozjs_sym_for_statement, 422),
     (mozjs_sym_for_in_statement, 422), (mozjs_sym_while_statement, 422),
     (mozjs_sym_do_statement, 422), (mozjs_sym_try_statement, 422),
     (mozjs_sym_with_statement, 422), (mozjs_sym_break_statement, 422),
     (mozjs_sym_continue_statement, 422), (mozjs_sym_debugger_statement, 422),
     (mozjs_sym_return_statement, 422), (mozjs_sym_throw_statement, 422),
     (mozjs_sym_empty_statement, 422), (mozjs_sym_labeled_statement, 422),
     (mozjs_sym_parenthesized_expression, 556), (mozjs_sym_expression, 823),
     (mozjs_sym_primary_expression, 693), (mozjs_sym_yield_expression, 743),
     (mozjs_sym_object, 793), (mozjs_sym_object_pattern, 1845),
     (mozjs_sym_array, 793), (mozjs_sym_array_pattern, 1845),
     (mozjs_sym_jsx_element, 743), (mozjs_sym_jsx_opening_element, 1158),
     (mozjs_sym_jsx_self_closing_element, 743), (mozjs_sym_class, 793),
     (mozjs_sym_class_declaration, 427), (mozjs_sym_function_expression, 793),
     (mozjs_sym_function_declaration, 427), (mozjs_sym_generator_function, 793),
     (mozjs_sym_generator_function_declaration, 427), (mozjs_sym_arrow_function, 793),
     (mozjs_sym_call_expression, 793), (mozjs_sym_new_expression, 692),
     (mozjs_sym_await_expression, 743), (mozjs_sym_member_expression, 556),
     (mozjs_sym_subscript_expression, 556), (mozjs_sym_assignment_expression, 743),
     (mozjs_sym__augmented_assignment_lhs, 1146), (mozjs_sym_augmented_assignment_expression,
       743),
     (mozjs_sym__destructuring_pattern, 1845), (mozjs_sym_ternary_expression, 743),
     (mozjs_sym_binary_expression, 743), (mozjs_sym_unary_expression, 743),
     (mozjs_sym_update_expression, 743), (mozjs_sym_sequence_expression, 1743),
     (mozjs_sym_string, 793), (mozjs_sym_template_string, 793),
     (mozjs_sym_regex, 793), (mozjs_sym_meta_property, 793),
     (mozjs_sym_decorator, 1112), (mozjs_sym_formal_parameters, 1847),
     (mozjs_aux_sym_program_repeat1, 20), (mozjs_aux_sym_export_statement_repeat1, 1278),
     (ts_builtin_sym_end, 7), (mozjs_sym_identifier, 9),
     (mozjs_sym_hash_bang_line, 11), (mozjs_anon_sym_export, 13),
     (mozjs_anon_sym_LBRACE, 15), (mozjs_anon_sym_import, 17),
     (mozjs_anon_sym_with, 19), (mozjs_anon_sym_var, 21),
     (mozjs_anon_sym_let, 23), (mozjs_anon_sym_const, 25),
     (mozjs_anon_sym_using, 27), (mozjs_anon_sym_await, 29),
     (mozjs_anon_sym_if, 31), (mozjs_anon_sym_switch, 33),
     (mozjs_anon_sym_for, 35), (mozjs_anon_sym_LPAREN, 37),
     (mozjs_anon_sym_SEMI, 39), (mozjs_anon_sym_while, 41),
     (mozjs_anon_sym_do, 43), (mozjs_anon_sym_try, 45),
     (mozjs_anon_sym_break, 47), (mozjs_anon_sym_continue, 49),
     (mozjs_anon_sym_debugger, 51), (mozjs_anon_sym_return, 53),
     (mozjs_anon_sym_throw, 55), (mozjs_anon_sym_yield, 57),
     (mozjs_anon_sym_LBRACK, 59), (mozjs_anon_sym_LT, 61),
     (mozjs_anon_sym_DQUOTE, 63), (mozjs_anon_sym_SQUOTE, 65),
     (mozjs_anon_sym_class, 67), (mozjs_anon_sym_async, 69),
     (mozjs_anon_sym_function, 71), (mozjs_anon_sym_new, 73),
     (mozjs_anon_sym_PLUS, 75), (mozjs_anon_sym_DASH, 75),
     (mozjs_anon_sym_SLASH, 77), (mozjs_anon_sym_BANG, 79),
     (mozjs_anon_sym_TILDE, 79), (mozjs_anon_sym_typeof, 75),
     (mozjs_anon_sym_void, 75), (mozjs_anon_sym_delete, 75),
     (mozjs_anon_sym_PLUS_PLUS, 81), (mozjs_anon_sym_DASH_DASH, 81),
     (mozjs_sym_comment, 5), (mozjs_anon_sym_BQUOTE, 83),
     (mozjs_sym_number, 85), (mozjs_sym_private_property_identifier, 87),
     (mozjs_sym_this, 89), (mozjs_sym_super, 89),
     (mozjs_sym_true, 89), (mozjs_sym_false, 89),
     (mozjs_sym_null, 89), (mozjs_sym_undefined, 91),
     (mozjs_anon_sym_AT, 93), (mozjs_anon_sym_static, 95),
     (mozjs_anon_sym_get, 95), (mozjs_anon_sym_set, 95),
     (mozjs_sym_preproc, 97), (mozjs_sym_html_comment, 5)]"

definition mozjs_parse_row_2 :: "(TSSymbol \<times> nat) list" where
  "mozjs_parse_row_2 =
    [(mozjs_sym_export_statement, 422), (mozjs_sym_declaration, 422),
     (mozjs_sym_import, 1333), (mozjs_sym_import_statement, 422),
     (mozjs_sym_statement, 17), (mozjs_sym_expression_statement, 422),
     (mozjs_sym_variable_declaration, 427), (mozjs_sym_lexical_declaration, 427),
     (mozjs_sym_using_declaration, 427), (mozjs_sym_statement_block, 422),
     (mozjs_sym_if_statement, 422), (mozjs_sym_switch_statement, 422),
     (mozjs_sym_for_statement, 422), (mozjs_sym_for_in_statement, 422),
     (mozjs_sym_while_statement, 422), (mozjs_sym_do_statement, 422),
     (mozjs_sym_try_statement, 422), (mozjs_sym_with_statement, 422),
     (mozjs_sym_break_statement, 422), (mozjs_sym_continue_statement, 422),
     (mozjs_sym_debugger_statement, 422), (mozjs_sym_return_statement, 422),
     (mozjs_sym_throw_statement, 422), (mozjs_sym_empty_statement, 422),
     (mozjs_sym_labeled_statement, 422), (mozjs_sym_parenthesized_expression, 556),
     (mozjs_sym_expression, 823), (mozjs_sym_primary_expression, 693),
     (mozjs_sym_yield_expression, 743), (mozjs_sym_object, 793),
     (mozjs_sym_object_pattern, 1763), (mozjs_sym_object_assignment_pattern, 1423),
     (mozjs_sym_array, 793), (mozjs_sym_array_pattern, 1763),
     (mozjs_sym_jsx_element, 743), (mozjs_sym_jsx_opening_element, 1158),
     (mozjs_sym_jsx_self_closing_element, 743), (mozjs_sym_class, 793),
     (mozjs_sym_class_declaration, 427), (mozjs_sym_function_expression, 793),
     (mozjs_sym_function_declaration, 427), (mozjs_sym_generator_function, 793),
     (mozjs_sym_generator_function_declaration, 427), (mozjs_sym_arrow_function, 793),
     (mozjs_sym_call_expression, 793), (mozjs_sym_new_expression, 692),
     (mozjs_sym_await_expression, 743), (mozjs_sym_member_expression, 556),
     (mozjs_sym_subscript_expression, 556), (mozjs_sym_assignment_expression, 743),
     (mozjs_sym__augmented_assignment_lhs, 1146), (mozjs_sym_augmented_assignment_expression,
       743),
     (mozjs_sym__destructuring_pattern, 1763), (mozjs_sym_spread_element, 1427),
     (mozjs_sym_ternary_expression, 743), (mozjs_sym_binary_expression, 743),
     (mozjs_sym_unary_expression, 743), (mozjs_sym_update_expression, 743),
     (mozjs_sym_sequence_expression, 1743), (mozjs_sym_string, 818),
     (mozjs_sym_template_string, 793), (mozjs_sym_regex, 793),
     (mozjs_sym_meta_property, 793), (mozjs_sym_decorator, 1112),
     (mozjs_sym_formal_parameters, 1847), (mozjs_sym_rest_pattern, 1423),
     (mozjs_sym_method_definition, 1427), (mozjs_sym_pair, 1427),
     (mozjs_sym_pair_pattern, 1423), (mozjs_sym__property_name, 1428),
     (mozjs_sym_computed_property_name, 1428), (mozjs_aux_sym_program_repeat1, 17),
     (mozjs_aux_sym_export_statement_repeat1, 1021), (mozjs_aux_sym_object_repeat1, 1430),
     (mozjs_aux_sym_object_pattern_repeat1, 1432), (mozjs_sym_identifier, 99),
     (mozjs_anon_sym_export, 101), (mozjs_anon_sym_STAR, 103),
     (mozjs_anon_sym_LBRACE, 15), (mozjs_anon_sym_COMMA, 105),
     (mozjs_anon_sym_RBRACE, 107), (mozjs_anon_sym_import, 17),
     (mozjs_anon_sym_with, 19), (mozjs_anon_sym_var, 21),
     (mozjs_anon_sym_let, 109), (mozjs_anon_sym_const, 25),
     (mozjs_anon_sym_using, 27), (mozjs_anon_sym_await, 111),
     (mozjs_anon_sym_if, 31), (mozjs_anon_sym_switch, 33),
     (mozjs_anon_sym_for, 35), (mozjs_anon_sym_LPAREN, 37),
     (mozjs_anon_sym_SEMI, 39), (mozjs_anon_sym_while, 41),
     (mozjs_anon_sym_do, 43), (mozjs_anon_sym_try, 45),
     (mozjs_anon_sym_break, 47), (mozjs_anon_sym_continue, 49),
     (mozjs_anon_sym_debugger, 51), (mozjs_anon_sym_return, 53),
     (mozjs_anon_sym_throw, 55), (mozjs_anon_sym_yield, 57),
     (mozjs_anon_sym_LBRACK, 113), (mozjs_anon_sym_LT, 61),
     (mozjs_anon_sym_DQUOTE, 63), (mozjs_anon_sym_SQUOTE, 65),
     (mozjs_anon_sym_class, 67), (mozjs_anon_sym_async, 115),
     (mozjs_anon_sym_function, 71), (mozjs_anon_sym_new, 73),
     (mozjs_anon_sym_DOT_DOT_DOT, 117), (mozjs_anon_sym_PLUS, 75),
     (mozjs_anon_sym_DASH, 75), (mozjs_anon_sym_SLASH, 77),
     (mozjs_anon_sym_BANG, 79), (mozjs_anon_sym_TILDE, 79),
     (mozjs_anon_sym_typeof, 75), (mozjs_anon_sym_void, 75),
     (mozjs_anon_sym_delete, 75), (mozjs_anon_sym_PLUS_PLUS, 81),
     (mozjs_anon_sym_DASH_DASH, 81), (mozjs_sym_comment, 5),
     (mozjs_anon_sym_BQUOTE, 83), (mozjs_sym_number, 119),
     (mozjs_sym_private_property_identifier, 121), (mozjs_sym_this, 89),
     (mozjs_sym_super, 89), (mozjs_sym_true, 89),
     (mozjs_sym_false, 89), (mozjs_sym_null, 89),
     (mozjs_sym_undefined, 91), (mozjs_anon_sym_AT, 93),
     (mozjs_anon_sym_static, 123), (mozjs_aux_sym_method_definition_token1, 125),
     (mozjs_anon_sym_get, 127), (mozjs_anon_sym_set, 127),
     (mozjs_sym_preproc, 97), (mozjs_sym_html_comment, 5)]"

definition mozjs_parse_row_3 :: "(TSSymbol \<times> nat) list" where
  "mozjs_parse_row_3 =
    [(mozjs_sym_export_statement, 422), (mozjs_sym_declaration, 422),
     (mozjs_sym_import, 1333), (mozjs_sym_import_statement, 422),
     (mozjs_sym_statement, 22), (mozjs_sym_expression_statement, 422),
     (mozjs_sym_variable_declaration, 427), (mozjs_sym_lexical_declaration, 427),
     (mozjs_sym_using_declaration, 427), (mozjs_sym_statement_block, 422),
     (mozjs_sym_if_statement, 422), (mozjs_sym_switch_statement, 422),
     (mozjs_sym_for_statement, 422), (mozjs_sym_for_in_statement, 422),
     (mozjs_sym_while_statement, 422), (mozjs_sym_do_statement, 422),
     (mozjs_sym_try_statement, 422), (mozjs_sym_with_statement, 422),
     (mozjs_sym_break_statement, 422), (mozjs_sym_continue_statement, 422),
     (mozjs_sym_debugger_statement, 422), (mozjs_sym_return_statement, 422),
     (mozjs_sym_throw_statement, 422), (mozjs_sym_empty_statement, 422),
     (mozjs_sym_labeled_statement, 422), (mozjs_sym_parenthesized_expression, 556),
     (mozjs_sym_expression, 823), (mozjs_sym_primary_expression, 693),
     (mozjs_sym_yield_expression, 743), (mozjs_sym_object, 793),
     (mozjs_sym_object_pattern, 1763), (mozjs_sym_object_assignment_pattern, 1423),
     (mozjs_sym_array, 793), (mozjs_sym_array_pattern, 1763),
     (mozjs_sym_jsx_element, 743), (mozjs_sym_jsx_opening_element, 1158),
     (mozjs_sym_jsx_self_closing_element, 743), (mozjs_sym_class, 793),
     (mozjs_sym_class_declaration, 427), (mozjs_sym_function_expression, 793),
     (mozjs_sym_function_declaration, 427), (mozjs_sym_generator_function, 793),
     (mozjs_sym_generator_function_declaration, 427), (mozjs_sym_arrow_function, 793),
     (mozjs_sym_call_expression, 793), (mozjs_sym_new_expression, 692),
     (mozjs_sym_await_expression, 743), (mozjs_sym_member_expression, 556),
     (mozjs_sym_subscript_expression, 556), (mozjs_sym_assignment_expression, 743),
     (mozjs_sym__augmented_assignment_lhs, 1146), (mozjs_sym_augmented_assignment_expression,
       743),
     (mozjs_sym__destructuring_pattern, 1763), (mozjs_sym_spread_element, 1427),
     (mozjs_sym_ternary_expression, 743), (mozjs_sym_binary_expression, 743),
     (mozjs_sym_unary_expression, 743), (mozjs_sym_update_expression, 743),
     (mozjs_sym_sequence_expression, 1743), (mozjs_sym_string, 818),
     (mozjs_sym_template_string, 793), (mozjs_sym_regex, 793),
     (mozjs_sym_meta_property, 793), (mozjs_sym_decorator, 1112),
     (mozjs_sym_formal_parameters, 1847), (mozjs_sym_rest_pattern, 1423),
     (mozjs_sym_method_definition, 1427), (mozjs_sym_pair, 1427),
     (mozjs_sym_pair_pattern, 1423), (mozjs_sym__property_name, 1428),
     (mozjs_sym_computed_property_name, 1428), (mozjs_aux_sym_program_repeat1, 22),
     (mozjs_aux_sym_export_statement_repeat1, 1021), (mozjs_aux_sym_object_repeat1, 1430),
     (mozjs_aux_sym_object_pattern_repeat1, 1432), (mozjs_sym_identifier, 99),
     (mozjs_anon_sym_export, 101), (mozjs_anon_sym_STAR, 103),
     (mozjs_anon_sym_LBRACE, 15), (mozjs_anon_sym_COMMA, 105),
     (mozjs_anon_sym_RBRACE, 129), (mozjs_anon_sym_import, 17),
     (mozjs_anon_sym_with, 19), (mozjs_anon_sym_var, 21),
     (mozjs_anon_sym_let, 109), (mozjs_anon_sym_const, 25),
     (mozjs_anon_sym_using, 27), (mozjs_anon_sym_await, 111),
     (mozjs_anon_sym_if, 31), (mozjs_anon_sym_switch, 33),
     (mozjs_anon_sym_for, 35), (mozjs_anon_sym_LPAREN, 37),
     (mozjs_anon_sym_SEMI, 39), (mozjs_anon_sym_while, 41),
     (mozjs_anon_sym_do, 43), (mozjs_anon_sym_try, 45),
     (mozjs_anon_sym_break, 47), (mozjs_anon_sym_continue, 49),
     (mozjs_anon_sym_debugger, 51), (mozjs_anon_sym_return, 53),
     (mozjs_anon_sym_throw, 55), (mozjs_anon_sym_yield, 57),
     (mozjs_anon_sym_LBRACK, 113), (mozjs_anon_sym_LT, 61),
     (mozjs_anon_sym_DQUOTE, 63), (mozjs_anon_sym_SQUOTE, 65),
     (mozjs_anon_sym_class, 67), (mozjs_anon_sym_async, 115),
     (mozjs_anon_sym_function, 71), (mozjs_anon_sym_new, 73),
     (mozjs_anon_sym_DOT_DOT_DOT, 117), (mozjs_anon_sym_PLUS, 75),
     (mozjs_anon_sym_DASH, 75), (mozjs_anon_sym_SLASH, 77),
     (mozjs_anon_sym_BANG, 79), (mozjs_anon_sym_TILDE, 79),
     (mozjs_anon_sym_typeof, 75), (mozjs_anon_sym_void, 75),
     (mozjs_anon_sym_delete, 75), (mozjs_anon_sym_PLUS_PLUS, 81),
     (mozjs_anon_sym_DASH_DASH, 81), (mozjs_sym_comment, 5),
     (mozjs_anon_sym_BQUOTE, 83), (mozjs_sym_number, 119),
     (mozjs_sym_private_property_identifier, 121), (mozjs_sym_this, 89),
     (mozjs_sym_super, 89), (mozjs_sym_true, 89),
     (mozjs_sym_false, 89), (mozjs_sym_null, 89),
     (mozjs_sym_undefined, 91), (mozjs_anon_sym_AT, 93),
     (mozjs_anon_sym_static, 123), (mozjs_aux_sym_method_definition_token1, 125),
     (mozjs_anon_sym_get, 127), (mozjs_anon_sym_set, 127),
     (mozjs_sym_preproc, 97), (mozjs_sym_html_comment, 5)]"

definition mozjs_parse_row_4 :: "(TSSymbol \<times> nat) list" where
  "mozjs_parse_row_4 =
    [(mozjs_sym_export_statement, 422), (mozjs_sym_declaration, 422),
     (mozjs_sym_import, 1333), (mozjs_sym_import_statement, 422),
     (mozjs_sym_statement, 24), (mozjs_sym_expression_statement, 422),
     (mozjs_sym_variable_declaration, 427), (mozjs_sym_lexical_declaration, 427),
     (mozjs_sym_using_declaration, 427), (mozjs_sym_statement_block, 422),
     (mozjs_sym_if_statement, 422), (mozjs_sym_switch_statement, 422),
     (mozjs_sym_for_statement, 422), (mozjs_sym_for_in_statement, 422),
     (mozjs_sym_while_statement, 422), (mozjs_sym_do_statement, 422),
     (mozjs_sym_try_statement, 422), (mozjs_sym_with_statement, 422),
     (mozjs_sym_break_statement, 422), (mozjs_sym_continue_statement, 422),
     (mozjs_sym_debugger_statement, 422), (mozjs_sym_return_statement, 422),
     (mozjs_sym_throw_statement, 422), (mozjs_sym_empty_statement, 422),
     (mozjs_sym_labeled_statement, 422), (mozjs_sym_parenthesized_expression, 556),
     (mozjs_sym_expression, 823), (mozjs_sym_primary_expression, 693),
     (mozjs_sym_yield_expression, 743), (mozjs_sym_object, 793),
     (mozjs_sym_object_pattern, 1763), (mozjs_sym_object_assignment_pattern, 1423),
     (mozjs_sym_array, 793), (mozjs_sym_array_pattern, 1763),
     (mozjs_sym_jsx_element, 743), (mozjs_sym_jsx_opening_element, 1158),
     (mozjs_sym_jsx_self_closing_element, 743), (mozjs_sym_class, 793),
     (mozjs_sym_class_declaration, 427), (mozjs_sym_function_expression, 793),
     (mozjs_sym_function_declaration, 427), (mozjs_sym_generator_function, 793),
     (mozjs_sym_generator_function_declaration, 427), (mozjs_sym_arrow_function, 793),
     (mozjs_sym_call_expression, 793), (mozjs_sym_new_expression, 692),
     (mozjs_sym_await_expression, 743), (mozjs_sym_member_expression, 556),
     (mozjs_sym_subscript_expression, 556), (mozjs_sym_assignment_expression, 743),
     (mozjs_sym__augmented_assignment_lhs, 1146), (mozjs_sym_augmented_assignment_expression,
       743),
     (mozjs_sym__destructuring_pattern, 1763), (mozjs_sym_spread_element, 1422),
     (mozjs_sym_ternary_expression, 743), (mozjs_sym_binary_expression, 743),
     (mozjs_sym_unary_expression, 743), (mozjs_sym_update_expression, 743),
     (mozjs_sym_sequence_expression, 1743), (mozjs_sym_string, 818),
     (mozjs_sym_template_string, 793), (mozjs_sym_regex, 793),
     (mozjs_sym_meta_property, 793), (mozjs_sym_decorator, 1112),
     (mozjs_sym_formal_parameters, 1847), (mozjs_sym_rest_pattern, 1423),
     (mozjs_sym_method_definition, 1422), (mozjs_sym_pair, 1422),
     (mozjs_sym_pair_pattern, 1423), (mozjs_sym__property_name, 1428),
     (mozjs_sym_computed_property_name, 1428), (mozjs_aux_sym_program_repeat1, 24),
     (mozjs_aux_sym_export_statement_repeat1, 1021), (mozjs_aux_sym_object_repeat1, 1425),
     (mozjs_aux_sym_object_pattern_repeat1, 1432), (mozjs_sym_identifier, 131),
     (mozjs_anon_sym_export, 133), (mozjs_anon_sym_STAR, 103),
     (mozjs_anon_sym_LBRACE, 15), (mozjs_anon_sym_COMMA, 105),
     (mozjs_anon_sym_RBRACE, 135), (mozjs_anon_sym_import, 17),
     (mozjs_anon_sym_with, 19), (mozjs_anon_sym_var, 21),
     (mozjs_anon_sym_let, 137), (mozjs_anon_sym_const, 25),
     (mozjs_anon_sym_using, 27), (mozjs_anon_sym_await, 139),
     (mozjs_anon_sym_if, 31), (mozjs_anon_sym_switch, 33),
     (mozjs_anon_sym_for, 35), (mozjs_anon_sym_LPAREN, 37),
     (mozjs_anon_sym_SEMI, 39), (mozjs_anon_sym_while, 41),
     (mozjs_anon_sym_do, 43), (mozjs_anon_sym_try, 45),
     (mozjs_anon_sym_break, 47), (mozjs_anon_sym_continue, 49),
     (mozjs_anon_sym_debugger, 51), (mozjs_anon_sym_return, 53),
     (mozjs_anon_sym_throw, 55), (mozjs_anon_sym_yield, 57),
     (mozjs_anon_sym_LBRACK, 113), (mozjs_anon_sym_LT, 61),
     (mozjs_anon_sym_DQUOTE, 63), (mozjs_anon_sym_SQUOTE, 65),
     (mozjs_anon_sym_class, 67), (mozjs_anon_sym_async, 141),
     (mozjs_anon_sym_function, 71), (mozjs_anon_sym_new, 73),
     (mozjs_anon_sym_DOT_DOT_DOT, 117), (mozjs_anon_sym_PLUS, 75),
     (mozjs_anon_sym_DASH, 75), (mozjs_anon_sym_SLASH, 77),
     (mozjs_anon_sym_BANG, 79), (mozjs_anon_sym_TILDE, 79),
     (mozjs_anon_sym_typeof, 75), (mozjs_anon_sym_void, 75),
     (mozjs_anon_sym_delete, 75), (mozjs_anon_sym_PLUS_PLUS, 81),
     (mozjs_anon_sym_DASH_DASH, 81), (mozjs_sym_comment, 5),
     (mozjs_anon_sym_BQUOTE, 83), (mozjs_sym_number, 119),
     (mozjs_sym_private_property_identifier, 121), (mozjs_sym_this, 89),
     (mozjs_sym_super, 89), (mozjs_sym_true, 89),
     (mozjs_sym_false, 89), (mozjs_sym_null, 89),
     (mozjs_sym_undefined, 91), (mozjs_anon_sym_AT, 93),
     (mozjs_anon_sym_static, 143), (mozjs_aux_sym_method_definition_token1, 125),
     (mozjs_anon_sym_get, 145), (mozjs_anon_sym_set, 145),
     (mozjs_sym_preproc, 97), (mozjs_sym_html_comment, 5)]"

definition mozjs_parse_row_5 :: "(TSSymbol \<times> nat) list" where
  "mozjs_parse_row_5 =
    [(mozjs_sym_export_statement, 422), (mozjs_sym_declaration, 422),
     (mozjs_sym_import, 1333), (mozjs_sym_import_statement, 422),
     (mozjs_sym_statement, 17), (mozjs_sym_expression_statement, 422),
     (mozjs_sym_variable_declaration, 427), (mozjs_sym_lexical_declaration, 427),
     (mozjs_sym_using_declaration, 427), (mozjs_sym_statement_block, 422),
     (mozjs_sym_if_statement, 422), (mozjs_sym_switch_statement, 422),
     (mozjs_sym_for_statement, 422), (mozjs_sym_for_in_statement, 422),
     (mozjs_sym_while_statement, 422), (mozjs_sym_do_statement, 422),
     (mozjs_sym_try_statement, 422), (mozjs_sym_with_statement, 422),
     (mozjs_sym_break_statement, 422), (mozjs_sym_continue_statement, 422),
     (mozjs_sym_debugger_statement, 422), (mozjs_sym_return_statement, 422),
     (mozjs_sym_throw_statement, 422), (mozjs_sym_empty_statement, 422),
     (mozjs_sym_labeled_statement, 422), (mozjs_sym_parenthesized_expression, 556),
     (mozjs_sym_expression, 823), (mozjs_sym_primary_expression, 693),
     (mozjs_sym_yield_expression, 743), (mozjs_sym_object, 793),
     (mozjs_sym_object_pattern, 1763), (mozjs_sym_object_assignment_pattern, 1423),
     (mozjs_sym_array, 793), (mozjs_sym_array_pattern, 1763),
     (mozjs_sym_jsx_element, 743), (mozjs_sym_jsx_opening_element, 1158),
     (mozjs_sym_jsx_self_closing_element, 743), (mozjs_sym_class, 793),
     (mozjs_sym_class_declaration, 427), (mozjs_sym_function_expression, 793),
     (mozjs_sym_function_declaration, 427), (mozjs_sym_generator_function, 793),
     (mozjs_sym_generator_function_declaration, 427), (mozjs_sym_arrow_function, 793),
     (mozjs_sym_call_expression, 793), (mozjs_sym_new_expression, 692),
     (mozjs_sym_await_expression, 743), (mozjs_sym_member_expression, 556),
     (mozjs_sym_subscript_expression, 556), (mozjs_sym_assignment_expression, 743),
     (mozjs_sym__augmented_assignment_lhs, 1146), (mozjs_sym_augmented_assignment_expression,
       743),
     (mozjs_sym__destructuring_pattern, 1763), (mozjs_sym_spread_element, 1427),
     (mozjs_sym_ternary_expression, 743), (mozjs_sym_binary_expression, 743),
     (mozjs_sym_unary_expression, 743), (mozjs_sym_update_expression, 743),
     (mozjs_sym_sequence_expression, 1743), (mozjs_sym_string, 818),
     (mozjs_sym_template_string, 793), (mozjs_sym_regex, 793),
     (mozjs_sym_meta_property, 793), (mozjs_sym_decorator, 1112),
     (mozjs_sym_formal_parameters, 1847), (mozjs_sym_rest_pattern, 1423),
     (mozjs_sym_method_definition, 1427), (mozjs_sym_pair, 1427),
     (mozjs_sym_pair_pattern, 1423), (mozjs_sym__property_name, 1428),
     (mozjs_sym_computed_property_name, 1428), (mozjs_aux_sym_program_repeat1, 17),
     (mozjs_aux_sym_export_statement_repeat1, 1021), (mozjs_aux_sym_object_repeat1, 1430),
     (mozjs_aux_sym_object_pattern_repeat1, 1432), (mozjs_sym_identifier, 99),
     (mozjs_anon_sym_export, 101), (mozjs_anon_sym_STAR, 103),
     (mozjs_anon_sym_LBRACE, 15), (mozjs_anon_sym_COMMA, 105),
     (mozjs_anon_sym_RBRACE, 147), (mozjs_anon_sym_import, 17),
     (mozjs_anon_sym_with, 19), (mozjs_anon_sym_var, 21),
     (mozjs_anon_sym_let, 109), (mozjs_anon_sym_const, 25),
     (mozjs_anon_sym_using, 27), (mozjs_anon_sym_await, 111),
     (mozjs_anon_sym_if, 31), (mozjs_anon_sym_switch, 33),
     (mozjs_anon_sym_for, 35), (mozjs_anon_sym_LPAREN, 37),
     (mozjs_anon_sym_SEMI, 39), (mozjs_anon_sym_while, 41),
     (mozjs_anon_sym_do, 43), (mozjs_anon_sym_try, 45),
     (mozjs_anon_sym_break, 47), (mozjs_anon_sym_continue, 49),
     (mozjs_anon_sym_debugger, 51), (mozjs_anon_sym_return, 53),
     (mozjs_anon_sym_throw, 55), (mozjs_anon_sym_yield, 57),
     (mozjs_anon_sym_LBRACK, 113), (mozjs_anon_sym_LT, 61),
     (mozjs_anon_sym_DQUOTE, 63), (mozjs_anon_sym_SQUOTE, 65),
     (mozjs_anon_sym_class, 67), (mozjs_anon_sym_async, 115),
     (mozjs_anon_sym_function, 71), (mozjs_anon_sym_new, 73),
     (mozjs_anon_sym_DOT_DOT_DOT, 117), (mozjs_anon_sym_PLUS, 75),
     (mozjs_anon_sym_DASH, 75), (mozjs_anon_sym_SLASH, 77),
     (mozjs_anon_sym_BANG, 79), (mozjs_anon_sym_TILDE, 79),
     (mozjs_anon_sym_typeof, 75), (mozjs_anon_sym_void, 75),
     (mozjs_anon_sym_delete, 75), (mozjs_anon_sym_PLUS_PLUS, 81),
     (mozjs_anon_sym_DASH_DASH, 81), (mozjs_sym_comment, 5),
     (mozjs_anon_sym_BQUOTE, 83), (mozjs_sym_number, 119),
     (mozjs_sym_private_property_identifier, 121), (mozjs_sym_this, 89),
     (mozjs_sym_super, 89), (mozjs_sym_true, 89),
     (mozjs_sym_false, 89), (mozjs_sym_null, 89),
     (mozjs_sym_undefined, 91), (mozjs_anon_sym_AT, 93),
     (mozjs_anon_sym_static, 123), (mozjs_aux_sym_method_definition_token1, 125),
     (mozjs_anon_sym_get, 127), (mozjs_anon_sym_set, 127),
     (mozjs_sym_preproc, 97), (mozjs_sym_html_comment, 5)]"

definition mozjs_parse_row_6 :: "(TSSymbol \<times> nat) list" where
  "mozjs_parse_row_6 =
    [(mozjs_sym_export_statement, 422), (mozjs_sym_declaration, 422),
     (mozjs_sym_import, 1333), (mozjs_sym_import_statement, 422),
     (mozjs_sym_statement, 24), (mozjs_sym_expression_statement, 422),
     (mozjs_sym_variable_declaration, 427), (mozjs_sym_lexical_declaration, 427),
     (mozjs_sym_using_declaration, 427), (mozjs_sym_statement_block, 422),
     (mozjs_sym_if_statement, 422), (mozjs_sym_switch_statement, 422),
     (mozjs_sym_for_statement, 422), (mozjs_sym_for_in_statement, 422),
     (mozjs_sym_while_statement, 422), (mozjs_sym_do_statement, 422),
     (mozjs_sym_try_statement, 422), (mozjs_sym_with_statement, 422),
     (mozjs_sym_break_statement, 422), (mozjs_sym_continue_statement, 422),
     (mozjs_sym_debugger_statement, 422), (mozjs_sym_return_statement, 422),
     (mozjs_sym_throw_statement, 422), (mozjs_sym_empty_statement, 422),
     (mozjs_sym_labeled_statement, 422), (mozjs_sym_parenthesized_expression, 556),
     (mozjs_sym_expression, 823), (mozjs_sym_primary_expression, 693),
     (mozjs_sym_yield_expression, 743), (mozjs_sym_object, 793),
     (mozjs_sym_object_pattern, 1763), (mozjs_sym_object_assignment_pattern, 1423),
     (mozjs_sym_array, 793), (mozjs_sym_array_pattern, 1763),
     (mozjs_sym_jsx_element, 743), (mozjs_sym_jsx_opening_element, 1158),
     (mozjs_sym_jsx_self_closing_element, 743), (mozjs_sym_class, 793),
     (mozjs_sym_class_declaration, 427), (mozjs_sym_function_expression, 793),
     (mozjs_sym_function_declaration, 427), (mozjs_sym_generator_function, 793),
     (mozjs_sym_generator_function_declaration, 427), (mozjs_sym_arrow_function, 793),
     (mozjs_sym_call_expression, 793), (mozjs_sym_new_expression, 692),
     (mozjs_sym_await_expression, 743), (mozjs_sym_member_expression, 556),
     (mozjs_sym_subscript_expression, 556), (mozjs_sym_assignment_expression, 743),
     (mozjs_sym__augmented_assignment_lhs, 1146), (mozjs_sym_augmented_assignment_expression,
       743),
     (mozjs_sym__destructuring_pattern, 1763), (mozjs_sym_spread_element, 1422),
     (mozjs_sym_ternary_expression, 743), (mozjs_sym_binary_expression, 743),
     (mozjs_sym_unary_expression, 743), (mozjs_sym_update_expression, 743),
     (mozjs_sym_sequence_expression, 1743), (mozjs_sym_string, 818),
     (mozjs_sym_template_string, 793), (mozjs_sym_regex, 793),
     (mozjs_sym_meta_property, 793), (mozjs_sym_decorator, 1112),
     (mozjs_sym_formal_parameters, 1847), (mozjs_sym_rest_pattern, 1423),
     (mozjs_sym_method_definition, 1422), (mozjs_sym_pair, 1422),
     (mozjs_sym_pair_pattern, 1423), (mozjs_sym__property_name, 1428),
     (mozjs_sym_computed_property_name, 1428), (mozjs_aux_sym_program_repeat1, 24),
     (mozjs_aux_sym_export_statement_repeat1, 1021), (mozjs_aux_sym_object_repeat1, 1425),
     (mozjs_aux_sym_object_pattern_repeat1, 1432), (mozjs_sym_identifier, 149),
     (mozjs_anon_sym_export, 151), (mozjs_anon_sym_STAR, 103),
     (mozjs_anon_sym_LBRACE, 15), (mozjs_anon_sym_COMMA, 105),
     (mozjs_anon_sym_RBRACE, 135), (mozjs_anon_sym_import, 17),
     (mozjs_anon_sym_with, 19), (mozjs_anon_sym_var, 21),
     (mozjs_anon_sym_let, 153), (mozjs_anon_sym_const, 25),
     (mozjs_anon_sym_using, 27), (mozjs_anon_sym_await, 155),
     (mozjs_anon_sym_if, 31), (mozjs_anon_sym_switch, 33),
     (mozjs_anon_sym_for, 35), (mozjs_anon_sym_LPAREN, 37),
     (mozjs_anon_sym_SEMI, 39), (mozjs_anon_sym_while, 41),
     (mozjs_anon_sym_do, 43), (mozjs_anon_sym_try, 45),
     (mozjs_anon_sym_break, 47), (mozjs_anon_sym_continue, 49),
     (mozjs_anon_sym_debugger, 51), (mozjs_anon_sym_return, 53),
     (mozjs_anon_sym_throw, 55), (mozjs_anon_sym_yield, 57),
     (mozjs_anon_sym_LBRACK, 113), (mozjs_anon_sym_LT, 61),
     (mozjs_anon_sym_DQUOTE, 63), (mozjs_anon_sym_SQUOTE, 65),
     (mozjs_anon_sym_class, 67), (mozjs_anon_sym_async, 157),
     (mozjs_anon_sym_function, 71), (mozjs_anon_sym_new, 73),
     (mozjs_anon_sym_DOT_DOT_DOT, 117), (mozjs_anon_sym_PLUS, 75),
     (mozjs_anon_sym_DASH, 75), (mozjs_anon_sym_SLASH, 77),
     (mozjs_anon_sym_BANG, 79), (mozjs_anon_sym_TILDE, 79),
     (mozjs_anon_sym_typeof, 75), (mozjs_anon_sym_void, 75),
     (mozjs_anon_sym_delete, 75), (mozjs_anon_sym_PLUS_PLUS, 81),
     (mozjs_anon_sym_DASH_DASH, 81), (mozjs_sym_comment, 5),
     (mozjs_anon_sym_BQUOTE, 83), (mozjs_sym_number, 119),
     (mozjs_sym_private_property_identifier, 121), (mozjs_sym_this, 89),
     (mozjs_sym_super, 89), (mozjs_sym_true, 89),
     (mozjs_sym_false, 89), (mozjs_sym_null, 89),
     (mozjs_sym_undefined, 91), (mozjs_anon_sym_AT, 93),
     (mozjs_anon_sym_static, 159), (mozjs_aux_sym_method_definition_token1, 125),
     (mozjs_anon_sym_get, 161), (mozjs_anon_sym_set, 161),
     (mozjs_sym_preproc, 97), (mozjs_sym_html_comment, 5)]"

definition mozjs_parse_row_7 :: "(TSSymbol \<times> nat) list" where
  "mozjs_parse_row_7 =
    [(mozjs_sym_export_statement, 422), (mozjs_sym_declaration, 422),
     (mozjs_sym_import, 1333), (mozjs_sym_import_statement, 422),
     (mozjs_sym_statement, 7), (mozjs_sym_expression_statement, 422),
     (mozjs_sym_variable_declaration, 427), (mozjs_sym_lexical_declaration, 427),
     (mozjs_sym_using_declaration, 427), (mozjs_sym_statement_block, 422),
     (mozjs_sym_if_statement, 422), (mozjs_sym_switch_statement, 422),
     (mozjs_sym_for_statement, 422), (mozjs_sym_for_in_statement, 422),
     (mozjs_sym_while_statement, 422), (mozjs_sym_do_statement, 422),
     (mozjs_sym_try_statement, 422), (mozjs_sym_with_statement, 422),
     (mozjs_sym_break_statement, 422), (mozjs_sym_continue_statement, 422),
     (mozjs_sym_debugger_statement, 422), (mozjs_sym_return_statement, 422),
     (mozjs_sym_throw_statement, 422), (mozjs_sym_empty_statement, 422),
     (mozjs_sym_labeled_statement, 422), (mozjs_sym_parenthesized_expression, 556),
     (mozjs_sym_expression, 823), (mozjs_sym_primary_expression, 693),
     (mozjs_sym_yield_expression, 743), (mozjs_sym_object, 793),
     (mozjs_sym_object_pattern, 1845), (mozjs_sym_array, 793),
     (mozjs_sym_array_pattern, 1845), (mozjs_sym_jsx_element, 743),
     (mozjs_sym_jsx_opening_element, 1158), (mozjs_sym_jsx_self_closing_element, 743),
     (mozjs_sym_class, 793), (mozjs_sym_class_declaration, 427),
     (mozjs_sym_function_expression, 793), (mozjs_sym_function_declaration, 427),
     (mozjs_sym_generator_function, 793), (mozjs_sym_generator_function_declaration, 427),
     (mozjs_sym_arrow_function, 793), (mozjs_sym_call_expression, 793),
     (mozjs_sym_new_expression, 692), (mozjs_sym_await_expression, 743),
     (mozjs_sym_member_expression, 556), (mozjs_sym_subscript_expression, 556),
     (mozjs_sym_assignment_expression, 743), (mozjs_sym__augmented_assignment_lhs, 1146),
     (mozjs_sym_augmented_assignment_expression, 743), (mozjs_sym__destructuring_pattern, 1845),
     (mozjs_sym_ternary_expression, 743), (mozjs_sym_binary_expression, 743),
     (mozjs_sym_unary_expression, 743), (mozjs_sym_update_expression, 743),
     (mozjs_sym_sequence_expression, 1743), (mozjs_sym_string, 793),
     (mozjs_sym_template_string, 793), (mozjs_sym_regex, 793),
     (mozjs_sym_meta_property, 793), (mozjs_sym_decorator, 1112),
     (mozjs_sym_formal_parameters, 1847), (mozjs_aux_sym_program_repeat1, 7),
     (mozjs_aux_sym_export_statement_repeat1, 1278), (ts_builtin_sym_end, 163),
     (mozjs_sym_identifier, 165), (mozjs_anon_sym_export, 168),
     (mozjs_anon_sym_default, 171), (mozjs_anon_sym_LBRACE, 173),
     (mozjs_anon_sym_RBRACE, 163), (mozjs_anon_sym_import, 176),
     (mozjs_anon_sym_with, 179), (mozjs_anon_sym_var, 182),
     (mozjs_anon_sym_let, 185), (mozjs_anon_sym_const, 188),
     (mozjs_anon_sym_using, 191), (mozjs_anon_sym_await, 194),
     (mozjs_anon_sym_if, 197), (mozjs_anon_sym_switch, 200),
     (mozjs_anon_sym_for, 203), (mozjs_anon_sym_LPAREN, 206),
     (mozjs_anon_sym_SEMI, 209), (mozjs_anon_sym_while, 212),
     (mozjs_anon_sym_do, 215), (mozjs_anon_sym_try, 218),
     (mozjs_anon_sym_break, 221), (mozjs_anon_sym_continue, 224),
     (mozjs_anon_sym_debugger, 227), (mozjs_anon_sym_return, 230),
     (mozjs_anon_sym_throw, 233), (mozjs_anon_sym_case, 171),
     (mozjs_anon_sym_yield, 236), (mozjs_anon_sym_LBRACK, 239),
     (mozjs_anon_sym_LT, 242), (mozjs_anon_sym_DQUOTE, 245),
     (mozjs_anon_sym_SQUOTE, 248), (mozjs_anon_sym_class, 251),
     (mozjs_anon_sym_async, 254), (mozjs_anon_sym_function, 257),
     (mozjs_anon_sym_new, 260), (mozjs_anon_sym_PLUS, 263),
     (mozjs_anon_sym_DASH, 263), (mozjs_anon_sym_SLASH, 266),
     (mozjs_anon_sym_BANG, 269), (mozjs_anon_sym_TILDE, 269),
     (mozjs_anon_sym_typeof, 263), (mozjs_anon_sym_void, 263),
     (mozjs_anon_sym_delete, 263), (mozjs_anon_sym_PLUS_PLUS, 272),
     (mozjs_anon_sym_DASH_DASH, 272), (mozjs_sym_comment, 5),
     (mozjs_anon_sym_BQUOTE, 275), (mozjs_sym_number, 278),
     (mozjs_sym_private_property_identifier, 281), (mozjs_sym_this, 284),
     (mozjs_sym_super, 284), (mozjs_sym_true, 284),
     (mozjs_sym_false, 284), (mozjs_sym_null, 284),
     (mozjs_sym_undefined, 287), (mozjs_anon_sym_AT, 290),
     (mozjs_anon_sym_static, 293), (mozjs_anon_sym_get, 293),
     (mozjs_anon_sym_set, 293), (mozjs_sym_preproc, 296),
     (mozjs_sym_html_comment, 5)]"

definition mozjs_parse_row_8 :: "(TSSymbol \<times> nat) list" where
  "mozjs_parse_row_8 =
    [(mozjs_sym_export_statement, 422), (mozjs_sym_declaration, 422),
     (mozjs_sym_import, 1333), (mozjs_sym_import_statement, 422),
     (mozjs_sym_statement, 12), (mozjs_sym_expression_statement, 422),
     (mozjs_sym_variable_declaration, 427), (mozjs_sym_lexical_declaration, 427),
     (mozjs_sym_using_declaration, 427), (mozjs_sym_statement_block, 422),
     (mozjs_sym_if_statement, 422), (mozjs_sym_switch_statement, 422),
     (mozjs_sym_for_statement, 422), (mozjs_sym_for_in_statement, 422),
     (mozjs_sym_while_statement, 422), (mozjs_sym_do_statement, 422),
     (mozjs_sym_try_statement, 422), (mozjs_sym_with_statement, 422),
     (mozjs_sym_break_statement, 422), (mozjs_sym_continue_statement, 422),
     (mozjs_sym_debugger_statement, 422), (mozjs_sym_return_statement, 422),
     (mozjs_sym_throw_statement, 422), (mozjs_sym_empty_statement, 422),
     (mozjs_sym_labeled_statement, 422), (mozjs_sym_parenthesized_expression, 556),
     (mozjs_sym_expression, 823), (mozjs_sym_primary_expression, 693),
     (mozjs_sym_yield_expression, 743), (mozjs_sym_object, 793),
     (mozjs_sym_object_pattern, 1845), (mozjs_sym_array, 793),
     (mozjs_sym_array_pattern, 1845), (mozjs_sym_jsx_element, 743),
     (mozjs_sym_jsx_opening_element, 1158), (mozjs_sym_jsx_self_closing_element, 743),
     (mozjs_sym_class, 793), (mozjs_sym_class_declaration, 427),
     (mozjs_sym_function_expression, 793), (mozjs_sym_function_declaration, 427),
     (mozjs_sym_generator_function, 793), (mozjs_sym_generator_function_declaration, 427),
     (mozjs_sym_arrow_function, 793), (mozjs_sym_call_expression, 793),
     (mozjs_sym_new_expression, 692), (mozjs_sym_await_expression, 743),
     (mozjs_sym_member_expression, 556), (mozjs_sym_subscript_expression, 556),
     (mozjs_sym_assignment_expression, 743), (mozjs_sym__augmented_assignment_lhs, 1146),
     (mozjs_sym_augmented_assignment_expression, 743), (mozjs_sym__destructuring_pattern, 1845),
     (mozjs_sym_ternary_expression, 743), (mozjs_sym_binary_expression, 743),
     (mozjs_sym_unary_expression, 743), (mozjs_sym_update_expression, 743),
     (mozjs_sym_sequence_expression, 1743), (mozjs_sym_string, 793),
     (mozjs_sym_template_string, 793), (mozjs_sym_regex, 793),
     (mozjs_sym_meta_property, 793), (mozjs_sym_decorator, 1112),
     (mozjs_sym_formal_parameters, 1847), (mozjs_aux_sym_program_repeat1, 12),
     (mozjs_aux_sym_export_statement_repeat1, 1278), (mozjs_sym_identifier, 9),
     (mozjs_anon_sym_export, 13), (mozjs_anon_sym_default, 299),
     (mozjs_anon_sym_LBRACE, 15), (mozjs_anon_sym_RBRACE, 301),
     (mozjs_anon_sym_import, 17), (mozjs_anon_sym_with, 19),
     (mozjs_anon_sym_var, 21), (mozjs_anon_sym_let, 23),
     (mozjs_anon_sym_const, 25), (mozjs_anon_sym_using, 27),
     (mozjs_anon_sym_await, 29), (mozjs_anon_sym_if, 31),
     (mozjs_anon_sym_switch, 33), (mozjs_anon_sym_for, 35),
     (mozjs_anon_sym_LPAREN, 37), (mozjs_anon_sym_SEMI, 39),
     (mozjs_anon_sym_while, 41), (mozjs_anon_sym_do, 43),
     (mozjs_anon_sym_try, 45), (mozjs_anon_sym_break, 47),
     (mozjs_anon_sym_continue, 49), (mozjs_anon_sym_debugger, 51),
     (mozjs_anon_sym_return, 53), (mozjs_anon_sym_throw, 55),
     (mozjs_anon_sym_case, 299), (mozjs_anon_sym_yield, 57),
     (mozjs_anon_sym_LBRACK, 59), (mozjs_anon_sym_LT, 61),
     (mozjs_anon_sym_DQUOTE, 63), (mozjs_anon_sym_SQUOTE, 65),
     (mozjs_anon_sym_class, 67), (mozjs_anon_sym_async, 69),
     (mozjs_anon_sym_function, 71), (mozjs_anon_sym_new, 73),
     (mozjs_anon_sym_PLUS, 75), (mozjs_anon_sym_DASH, 75),
     (mozjs_anon_sym_SLASH, 77), (mozjs_anon_sym_BANG, 79),
     (mozjs_anon_sym_TILDE, 79), (mozjs_anon_sym_typeof, 75),
     (mozjs_anon_sym_void, 75), (mozjs_anon_sym_delete, 75),
     (mozjs_anon_sym_PLUS_PLUS, 81), (mozjs_anon_sym_DASH_DASH, 81),
     (mozjs_sym_comment, 5), (mozjs_anon_sym_BQUOTE, 83),
     (mozjs_sym_number, 85), (mozjs_sym_private_property_identifier, 87),
     (mozjs_sym_this, 89), (mozjs_sym_super, 89),
     (mozjs_sym_true, 89), (mozjs_sym_false, 89),
     (mozjs_sym_null, 89), (mozjs_sym_undefined, 91),
     (mozjs_anon_sym_AT, 93), (mozjs_anon_sym_static, 95),
     (mozjs_anon_sym_get, 95), (mozjs_anon_sym_set, 95),
     (mozjs_sym_preproc, 97), (mozjs_sym_html_comment, 5)]"

definition mozjs_parse_row_9 :: "(TSSymbol \<times> nat) list" where
  "mozjs_parse_row_9 =
    [(mozjs_sym_import, 1333), (mozjs_sym_parenthesized_expression, 556),
     (mozjs_sym_expression, 698), (mozjs_sym_primary_expression, 693),
     (mozjs_sym_yield_expression, 743), (mozjs_sym_object, 793),
     (mozjs_sym_object_pattern, 1845), (mozjs_sym_array, 793),
     (mozjs_sym_array_pattern, 1845), (mozjs_sym_jsx_element, 743),
     (mozjs_sym_jsx_opening_element, 1158), (mozjs_sym_jsx_self_closing_element, 743),
     (mozjs_sym_class, 793), (mozjs_sym_function_expression, 793),
     (mozjs_sym_generator_function, 793), (mozjs_sym_arrow_function, 793),
     (mozjs_sym_call_expression, 793), (mozjs_sym_new_expression, 692),
     (mozjs_sym_await_expression, 743), (mozjs_sym_member_expression, 556),
     (mozjs_sym_subscript_expression, 556), (mozjs_sym_assignment_expression, 743),
     (mozjs_sym__augmented_assignment_lhs, 1146), (mozjs_sym_augmented_assignment_expression,
       743),
     (mozjs_sym__destructuring_pattern, 1845), (mozjs_sym_ternary_expression, 743),
     (mozjs_sym_binary_expression, 743), (mozjs_sym_unary_expression, 743),
     (mozjs_sym_update_expression, 743), (mozjs_sym_string, 793),
     (mozjs_sym_template_string, 793), (mozjs_sym_regex, 793),
     (mozjs_sym_meta_property, 793), (mozjs_sym_decorator, 1112),
     (mozjs_sym_formal_parameters, 1847), (mozjs_aux_sym_export_statement_repeat1, 1331),
     (mozjs_aux_sym_object_repeat1, 1411), (mozjs_aux_sym_object_pattern_repeat1, 1414),
     (mozjs_sym_identifier, 303), (mozjs_anon_sym_export, 305),
     (mozjs_anon_sym_STAR, 307), (mozjs_anon_sym_LBRACE, 309),
     (mozjs_anon_sym_COMMA, 311), (mozjs_anon_sym_RBRACE, 313),
     (mozjs_anon_sym_import, 315), (mozjs_anon_sym_let, 305),
     (mozjs_anon_sym_using, 317), (mozjs_anon_sym_await, 319),
     (mozjs_anon_sym_LPAREN, 321), (mozjs_anon_sym_SEMI, 311),
     (mozjs_anon_sym_in, 307), (mozjs_anon_sym_COLON, 325),
     (mozjs_anon_sym_yield, 57), (mozjs_anon_sym_EQ, 328),
     (mozjs_anon_sym_LBRACK, 330), (mozjs_anon_sym_LT, 333),
     (mozjs_anon_sym_GT, 307), (mozjs_anon_sym_DOT, 307),
     (mozjs_anon_sym_DQUOTE, 63), (mozjs_anon_sym_SQUOTE, 65),
     (mozjs_anon_sym_class, 336), (mozjs_anon_sym_async, 338),
     (mozjs_anon_sym_function, 340), (mozjs_anon_sym_EQ_GT, 342),
     (mozjs_sym_optional_chain, 311), (mozjs_anon_sym_new, 73),
     (mozjs_anon_sym_PLUS_EQ, 344), (mozjs_anon_sym_DASH_EQ, 344),
     (mozjs_anon_sym_STAR_EQ, 344), (mozjs_anon_sym_SLASH_EQ, 344),
     (mozjs_anon_sym_PERCENT_EQ, 344), (mozjs_anon_sym_CARET_EQ, 344),
     (mozjs_anon_sym_AMP_EQ, 344), (mozjs_anon_sym_PIPE_EQ, 344),
     (mozjs_anon_sym_GT_GT_EQ, 344), (mozjs_anon_sym_GT_GT_GT_EQ, 344),
     (mozjs_anon_sym_LT_LT_EQ, 344), (mozjs_anon_sym_STAR_STAR_EQ, 344),
     (mozjs_anon_sym_AMP_AMP_EQ, 344), (mozjs_anon_sym_PIPE_PIPE_EQ, 344),
     (mozjs_anon_sym_QMARK_QMARK_EQ, 344), (mozjs_anon_sym_AMP_AMP, 307),
     (mozjs_anon_sym_PIPE_PIPE, 307), (mozjs_anon_sym_GT_GT, 307),
     (mozjs_anon_sym_GT_GT_GT, 307), (mozjs_anon_sym_LT_LT, 307),
     (mozjs_anon_sym_AMP, 307), (mozjs_anon_sym_CARET, 307),
     (mozjs_anon_sym_PIPE, 307), (mozjs_anon_sym_PLUS, 346),
     (mozjs_anon_sym_DASH, 346), (mozjs_anon_sym_SLASH, 349),
     (mozjs_anon_sym_PERCENT, 307), (mozjs_anon_sym_STAR_STAR, 307),
     (mozjs_anon_sym_LT_EQ, 311), (mozjs_anon_sym_EQ_EQ, 307),
     (mozjs_anon_sym_EQ_EQ_EQ, 311), (mozjs_anon_sym_BANG_EQ, 307),
     (mozjs_anon_sym_BANG_EQ_EQ, 311), (mozjs_anon_sym_GT_EQ, 311),
     (mozjs_anon_sym_QMARK_QMARK, 307), (mozjs_anon_sym_instanceof, 307),
     (mozjs_anon_sym_BANG, 75), (mozjs_anon_sym_TILDE, 79),
     (mozjs_anon_sym_typeof, 75), (mozjs_anon_sym_void, 75),
     (mozjs_anon_sym_delete, 75), (mozjs_anon_sym_PLUS_PLUS, 352),
     (mozjs_anon_sym_DASH_DASH, 352), (mozjs_sym_comment, 5),
     (mozjs_anon_sym_BQUOTE, 355), (mozjs_sym_number, 85),
     (mozjs_sym_private_property_identifier, 358), (mozjs_sym_this, 89),
     (mozjs_sym_super, 89), (mozjs_sym_true, 89),
     (mozjs_sym_false, 89), (mozjs_sym_null, 89),
     (mozjs_sym_undefined, 91), (mozjs_anon_sym_AT, 93),
     (mozjs_anon_sym_static, 305), (mozjs_anon_sym_get, 305),
     (mozjs_anon_sym_set, 305), (mozjs_sym__automatic_semicolon, 311),
     (mozjs_sym__ternary_qmark, 311), (mozjs_sym_html_comment, 5)]"

definition mozjs_parse_row_10 :: "(TSSymbol \<times> nat) list" where
  "mozjs_parse_row_10 =
    [(mozjs_sym_export_statement, 422), (mozjs_sym_declaration, 422),
     (mozjs_sym_import, 1333), (mozjs_sym_import_statement, 422),
     (mozjs_sym_statement, 7), (mozjs_sym_expression_statement, 422),
     (mozjs_sym_variable_declaration, 427), (mozjs_sym_lexical_declaration, 427),
     (mozjs_sym_using_declaration, 427), (mozjs_sym_statement_block, 422),
     (mozjs_sym_if_statement, 422), (mozjs_sym_switch_statement, 422),
     (mozjs_sym_for_statement, 422), (mozjs_sym_for_in_statement, 422),
     (mozjs_sym_while_statement, 422), (mozjs_sym_do_statement, 422),
     (mozjs_sym_try_statement, 422), (mozjs_sym_with_statement, 422),
     (mozjs_sym_break_statement, 422), (mozjs_sym_continue_statement, 422),
     (mozjs_sym_debugger_statement, 422), (mozjs_sym_return_statement, 422),
     (mozjs_sym_throw_statement, 422), (mozjs_sym_empty_statement, 422),
     (mozjs_sym_labeled_statement, 422), (mozjs_sym_parenthesized_expression, 556),
     (mozjs_sym_expression, 823), (mozjs_sym_primary_expression, 693),
     (mozjs_sym_yield_expression, 743), (mozjs_sym_object, 793),
     (mozjs_sym_object_pattern, 1845), (mozjs_sym_array, 793),
     (mozjs_sym_array_pattern, 1845), (mozjs_sym_jsx_element, 743),
     (mozjs_sym_jsx_opening_element, 1158), (mozjs_sym_jsx_self_closing_element, 743),
     (mozjs_sym_class, 793), (mozjs_sym_class_declaration, 427),
     (mozjs_sym_function_expression, 793), (mozjs_sym_function_declaration, 427),
     (mozjs_sym_generator_function, 793), (mozjs_sym_generator_function_declaration, 427),
     (mozjs_sym_arrow_function, 793), (mozjs_sym_call_expression, 793),
     (mozjs_sym_new_expression, 692), (mozjs_sym_await_expression, 743),
     (mozjs_sym_member_expression, 556), (mozjs_sym_subscript_expression, 556),
     (mozjs_sym_assignment_expression, 743), (mozjs_sym__augmented_assignment_lhs, 1146),
     (mozjs_sym_augmented_assignment_expression, 743), (mozjs_sym__destructuring_pattern, 1845),
     (mozjs_sym_ternary_expression, 743), (mozjs_sym_binary_expression, 743),
     (mozjs_sym_unary_expression, 743), (mozjs_sym_update_expression, 743),
     (mozjs_sym_sequence_expression, 1743), (mozjs_sym_string, 793),
     (mozjs_sym_template_string, 793), (mozjs_sym_regex, 793),
     (mozjs_sym_meta_property, 793), (mozjs_sym_decorator, 1112),
     (mozjs_sym_formal_parameters, 1847), (mozjs_aux_sym_program_repeat1, 7),
     (mozjs_aux_sym_export_statement_repeat1, 1278), (mozjs_sym_identifier, 9),
     (mozjs_anon_sym_export, 13), (mozjs_anon_sym_default, 360),
     (mozjs_anon_sym_LBRACE, 15), (mozjs_anon_sym_RBRACE, 362),
     (mozjs_anon_sym_import, 17), (mozjs_anon_sym_with, 19),
     (mozjs_anon_sym_var, 21), (mozjs_anon_sym_let, 23),
     (mozjs_anon_sym_const, 25), (mozjs_anon_sym_using, 27),
     (mozjs_anon_sym_await, 29), (mozjs_anon_sym_if, 31),
     (mozjs_anon_sym_switch, 33), (mozjs_anon_sym_for, 35),
     (mozjs_anon_sym_LPAREN, 37), (mozjs_anon_sym_SEMI, 39),
     (mozjs_anon_sym_while, 41), (mozjs_anon_sym_do, 43),
     (mozjs_anon_sym_try, 45), (mozjs_anon_sym_break, 47),
     (mozjs_anon_sym_continue, 49), (mozjs_anon_sym_debugger, 51),
     (mozjs_anon_sym_return, 53), (mozjs_anon_sym_throw, 55),
     (mozjs_anon_sym_case, 360), (mozjs_anon_sym_yield, 57),
     (mozjs_anon_sym_LBRACK, 59), (mozjs_anon_sym_LT, 61),
     (mozjs_anon_sym_DQUOTE, 63), (mozjs_anon_sym_SQUOTE, 65),
     (mozjs_anon_sym_class, 67), (mozjs_anon_sym_async, 69),
     (mozjs_anon_sym_function, 71), (mozjs_anon_sym_new, 73),
     (mozjs_anon_sym_PLUS, 75), (mozjs_anon_sym_DASH, 75),
     (mozjs_anon_sym_SLASH, 77), (mozjs_anon_sym_BANG, 79),
     (mozjs_anon_sym_TILDE, 79), (mozjs_anon_sym_typeof, 75),
     (mozjs_anon_sym_void, 75), (mozjs_anon_sym_delete, 75),
     (mozjs_anon_sym_PLUS_PLUS, 81), (mozjs_anon_sym_DASH_DASH, 81),
     (mozjs_sym_comment, 5), (mozjs_anon_sym_BQUOTE, 83),
     (mozjs_sym_number, 85), (mozjs_sym_private_property_identifier, 87),
     (mozjs_sym_this, 89), (mozjs_sym_super, 89),
     (mozjs_sym_true, 89), (mozjs_sym_false, 89),
     (mozjs_sym_null, 89), (mozjs_sym_undefined, 91),
     (mozjs_anon_sym_AT, 93), (mozjs_anon_sym_static, 95),
     (mozjs_anon_sym_get, 95), (mozjs_anon_sym_set, 95),
     (mozjs_sym_preproc, 97), (mozjs_sym_html_comment, 5)]"

definition mozjs_parse_row_11 :: "(TSSymbol \<times> nat) list" where
  "mozjs_parse_row_11 =
    [(mozjs_sym_export_statement, 422), (mozjs_sym_declaration, 422),
     (mozjs_sym_import, 1333), (mozjs_sym_import_statement, 422),
     (mozjs_sym_statement, 10), (mozjs_sym_expression_statement, 422),
     (mozjs_sym_variable_declaration, 427), (mozjs_sym_lexical_declaration, 427),
     (mozjs_sym_using_declaration, 427), (mozjs_sym_statement_block, 422),
     (mozjs_sym_if_statement, 422), (mozjs_sym_switch_statement, 422),
     (mozjs_sym_for_statement, 422), (mozjs_sym_for_in_statement, 422),
     (mozjs_sym_while_statement, 422), (mozjs_sym_do_statement, 422),
     (mozjs_sym_try_statement, 422), (mozjs_sym_with_statement, 422),
     (mozjs_sym_break_statement, 422), (mozjs_sym_continue_statement, 422),
     (mozjs_sym_debugger_statement, 422), (mozjs_sym_return_statement, 422),
     (mozjs_sym_throw_statement, 422), (mozjs_sym_empty_statement, 422),
     (mozjs_sym_labeled_statement, 422), (mozjs_sym_parenthesized_expression, 556),
     (mozjs_sym_expression, 823), (mozjs_sym_primary_expression, 693),
     (mozjs_sym_yield_expression, 743), (mozjs_sym_object, 793),
     (mozjs_sym_object_pattern, 1845), (mozjs_sym_array, 793),
     (mozjs_sym_array_pattern, 1845), (mozjs_sym_jsx_element, 743),
     (mozjs_sym_jsx_opening_element, 1158), (mozjs_sym_jsx_self_closing_element, 743),
     (mozjs_sym_class, 793), (mozjs_sym_class_declaration, 427),
     (mozjs_sym_function_expression, 793), (mozjs_sym_function_declaration, 427),
     (mozjs_sym_generator_function, 793), (mozjs_sym_generator_function_declaration, 427),
     (mozjs_sym_arrow_function, 793), (mozjs_sym_call_expression, 793),
     (mozjs_sym_new_expression, 692), (mozjs_sym_await_expression, 743),
     (mozjs_sym_member_expression, 556), (mozjs_sym_subscript_expression, 556),
     (mozjs_sym_assignment_expression, 743), (mozjs_sym__augmented_assignment_lhs, 1146),
     (mozjs_sym_augmented_assignment_expression, 743), (mozjs_sym__destructuring_pattern, 1845),
     (mozjs_sym_ternary_expression, 743), (mozjs_sym_binary_expression, 743),
     (mozjs_sym_unary_expression, 743), (mozjs_sym_update_expression, 743),
     (mozjs_sym_sequence_expression, 1743), (mozjs_sym_string, 793),
     (mozjs_sym_template_string, 793), (mozjs_sym_regex, 793),
     (mozjs_sym_meta_property, 793), (mozjs_sym_decorator, 1112),
     (mozjs_sym_formal_parameters, 1847), (mozjs_aux_sym_program_repeat1, 10),
     (mozjs_aux_sym_export_statement_repeat1, 1278), (mozjs_sym_identifier, 9),
     (mozjs_anon_sym_export, 13), (mozjs_anon_sym_default, 364),
     (mozjs_anon_sym_LBRACE, 15), (mozjs_anon_sym_RBRACE, 366),
     (mozjs_anon_sym_import, 17), (mozjs_anon_sym_with, 19),
     (mozjs_anon_sym_var, 21), (mozjs_anon_sym_let, 23),
     (mozjs_anon_sym_const, 25), (mozjs_anon_sym_using, 27),
     (mozjs_anon_sym_await, 29), (mozjs_anon_sym_if, 31),
     (mozjs_anon_sym_switch, 33), (mozjs_anon_sym_for, 35),
     (mozjs_anon_sym_LPAREN, 37), (mozjs_anon_sym_SEMI, 39),
     (mozjs_anon_sym_while, 41), (mozjs_anon_sym_do, 43),
     (mozjs_anon_sym_try, 45), (mozjs_anon_sym_break, 47),
     (mozjs_anon_sym_continue, 49), (mozjs_anon_sym_debugger, 51),
     (mozjs_anon_sym_return, 53), (mozjs_anon_sym_throw, 55),
     (mozjs_anon_sym_case, 364), (mozjs_anon_sym_yield, 57),
     (mozjs_anon_sym_LBRACK, 59), (mozjs_anon_sym_LT, 61),
     (mozjs_anon_sym_DQUOTE, 63), (mozjs_anon_sym_SQUOTE, 65),
     (mozjs_anon_sym_class, 67), (mozjs_anon_sym_async, 69),
     (mozjs_anon_sym_function, 71), (mozjs_anon_sym_new, 73),
     (mozjs_anon_sym_PLUS, 75), (mozjs_anon_sym_DASH, 75),
     (mozjs_anon_sym_SLASH, 77), (mozjs_anon_sym_BANG, 79),
     (mozjs_anon_sym_TILDE, 79), (mozjs_anon_sym_typeof, 75),
     (mozjs_anon_sym_void, 75), (mozjs_anon_sym_delete, 75),
     (mozjs_anon_sym_PLUS_PLUS, 81), (mozjs_anon_sym_DASH_DASH, 81),
     (mozjs_sym_comment, 5), (mozjs_anon_sym_BQUOTE, 83),
     (mozjs_sym_number, 85), (mozjs_sym_private_property_identifier, 87),
     (mozjs_sym_this, 89), (mozjs_sym_super, 89),
     (mozjs_sym_true, 89), (mozjs_sym_false, 89),
     (mozjs_sym_null, 89), (mozjs_sym_undefined, 91),
     (mozjs_anon_sym_AT, 93), (mozjs_anon_sym_static, 95),
     (mozjs_anon_sym_get, 95), (mozjs_anon_sym_set, 95),
     (mozjs_sym_preproc, 97), (mozjs_sym_html_comment, 5)]"

definition mozjs_parse_row_12 :: "(TSSymbol \<times> nat) list" where
  "mozjs_parse_row_12 =
    [(mozjs_sym_export_statement, 422), (mozjs_sym_declaration, 422),
     (mozjs_sym_import, 1333), (mozjs_sym_import_statement, 422),
     (mozjs_sym_statement, 7), (mozjs_sym_expression_statement, 422),
     (mozjs_sym_variable_declaration, 427), (mozjs_sym_lexical_declaration, 427),
     (mozjs_sym_using_declaration, 427), (mozjs_sym_statement_block, 422),
     (mozjs_sym_if_statement, 422), (mozjs_sym_switch_statement, 422),
     (mozjs_sym_for_statement, 422), (mozjs_sym_for_in_statement, 422),
     (mozjs_sym_while_statement, 422), (mozjs_sym_do_statement, 422),
     (mozjs_sym_try_statement, 422), (mozjs_sym_with_statement, 422),
     (mozjs_sym_break_statement, 422), (mozjs_sym_continue_statement, 422),
     (mozjs_sym_debugger_statement, 422), (mozjs_sym_return_statement, 422),
     (mozjs_sym_throw_statement, 422), (mozjs_sym_empty_statement, 422),
     (mozjs_sym_labeled_statement, 422), (mozjs_sym_parenthesized_expression, 556),
     (mozjs_sym_expression, 823), (mozjs_sym_primary_expression, 693),
     (mozjs_sym_yield_expression, 743), (mozjs_sym_object, 793),
     (mozjs_sym_object_pattern, 1845), (mozjs_sym_array, 793),
     (mozjs_sym_array_pattern, 1845), (mozjs_sym_jsx_element, 743),
     (mozjs_sym_jsx_opening_element, 1158), (mozjs_sym_jsx_self_closing_element, 743),
     (mozjs_sym_class, 793), (mozjs_sym_class_declaration, 427),
     (mozjs_sym_function_expression, 793), (mozjs_sym_function_declaration, 427),
     (mozjs_sym_generator_function, 793), (mozjs_sym_generator_function_declaration, 427),
     (mozjs_sym_arrow_function, 793), (mozjs_sym_call_expression, 793),
     (mozjs_sym_new_expression, 692), (mozjs_sym_await_expression, 743),
     (mozjs_sym_member_expression, 556), (mozjs_sym_subscript_expression, 556),
     (mozjs_sym_assignment_expression, 743), (mozjs_sym__augmented_assignment_lhs, 1146),
     (mozjs_sym_augmented_assignment_expression, 743), (mozjs_sym__destructuring_pattern, 1845),
     (mozjs_sym_ternary_expression, 743), (mozjs_sym_binary_expression, 743),
     (mozjs_sym_unary_expression, 743), (mozjs_sym_update_expression, 743),
     (mozjs_sym_sequence_expression, 1743), (mozjs_sym_string, 793),
     (mozjs_sym_template_string, 793), (mozjs_sym_regex, 793),
     (mozjs_sym_meta_property, 793), (mozjs_sym_decorator, 1112),
     (mozjs_sym_formal_parameters, 1847), (mozjs_aux_sym_program_repeat1, 7),
     (mozjs_aux_sym_export_statement_repeat1, 1278), (mozjs_sym_identifier, 9),
     (mozjs_anon_sym_export, 13), (mozjs_anon_sym_default, 368),
     (mozjs_anon_sym_LBRACE, 15), (mozjs_anon_sym_RBRACE, 370),
     (mozjs_anon_sym_import, 17), (mozjs_anon_sym_with, 19),
     (mozjs_anon_sym_var, 21), (mozjs_anon_sym_let, 23),
     (mozjs_anon_sym_const, 25), (mozjs_anon_sym_using, 27),
     (mozjs_anon_sym_await, 29), (mozjs_anon_sym_if, 31),
     (mozjs_anon_sym_switch, 33), (mozjs_anon_sym_for, 35),
     (mozjs_anon_sym_LPAREN, 37), (mozjs_anon_sym_SEMI, 39),
     (mozjs_anon_sym_while, 41), (mozjs_anon_sym_do, 43),
     (mozjs_anon_sym_try, 45), (mozjs_anon_sym_break, 47),
     (mozjs_anon_sym_continue, 49), (mozjs_anon_sym_debugger, 51),
     (mozjs_anon_sym_return, 53), (mozjs_anon_sym_throw, 55),
     (mozjs_anon_sym_case, 368), (mozjs_anon_sym_yield, 57),
     (mozjs_anon_sym_LBRACK, 59), (mozjs_anon_sym_LT, 61),
     (mozjs_anon_sym_DQUOTE, 63), (mozjs_anon_sym_SQUOTE, 65),
     (mozjs_anon_sym_class, 67), (mozjs_anon_sym_async, 69),
     (mozjs_anon_sym_function, 71), (mozjs_anon_sym_new, 73),
     (mozjs_anon_sym_PLUS, 75), (mozjs_anon_sym_DASH, 75),
     (mozjs_anon_sym_SLASH, 77), (mozjs_anon_sym_BANG, 79),
     (mozjs_anon_sym_TILDE, 79), (mozjs_anon_sym_typeof, 75),
     (mozjs_anon_sym_void, 75), (mozjs_anon_sym_delete, 75),
     (mozjs_anon_sym_PLUS_PLUS, 81), (mozjs_anon_sym_DASH_DASH, 81),
     (mozjs_sym_comment, 5), (mozjs_anon_sym_BQUOTE, 83),
     (mozjs_sym_number, 85), (mozjs_sym_private_property_identifier, 87),
     (mozjs_sym_this, 89), (mozjs_sym_super, 89),
     (mozjs_sym_true, 89), (mozjs_sym_false, 89),
     (mozjs_sym_null, 89), (mozjs_sym_undefined, 91),
     (mozjs_anon_sym_AT, 93), (mozjs_anon_sym_static, 95),
     (mozjs_anon_sym_get, 95), (mozjs_anon_sym_set, 95),
     (mozjs_sym_preproc, 97), (mozjs_sym_html_comment, 5)]"

definition mozjs_parse_row_13 :: "(TSSymbol \<times> nat) list" where
  "mozjs_parse_row_13 =
    [(mozjs_sym_import, 1333), (mozjs_sym_parenthesized_expression, 556),
     (mozjs_sym_expression, 698), (mozjs_sym_primary_expression, 693),
     (mozjs_sym_yield_expression, 743), (mozjs_sym_object, 793),
     (mozjs_sym_object_pattern, 1845), (mozjs_sym_array, 793),
     (mozjs_sym_array_pattern, 1845), (mozjs_sym_jsx_element, 743),
     (mozjs_sym_jsx_opening_element, 1158), (mozjs_sym_jsx_self_closing_element, 743),
     (mozjs_sym_class, 793), (mozjs_sym_function_expression, 793),
     (mozjs_sym_generator_function, 793), (mozjs_sym_arrow_function, 793),
     (mozjs_sym_call_expression, 793), (mozjs_sym_new_expression, 692),
     (mozjs_sym_await_expression, 743), (mozjs_sym_member_expression, 556),
     (mozjs_sym_subscript_expression, 556), (mozjs_sym_assignment_expression, 743),
     (mozjs_sym__augmented_assignment_lhs, 1146), (mozjs_sym_augmented_assignment_expression,
       743),
     (mozjs_sym__destructuring_pattern, 1845), (mozjs_sym_ternary_expression, 743),
     (mozjs_sym_binary_expression, 743), (mozjs_sym_unary_expression, 743),
     (mozjs_sym_update_expression, 743), (mozjs_sym_string, 793),
     (mozjs_sym_template_string, 793), (mozjs_sym_regex, 793),
     (mozjs_sym_meta_property, 793), (mozjs_sym_decorator, 1112),
     (mozjs_sym_formal_parameters, 1847), (mozjs_aux_sym_export_statement_repeat1, 1331),
     (mozjs_aux_sym_object_repeat1, 1442), (mozjs_aux_sym_object_pattern_repeat1, 1414),
     (mozjs_sym_identifier, 303), (mozjs_anon_sym_export, 305),
     (mozjs_anon_sym_STAR, 307), (mozjs_anon_sym_LBRACE, 309),
     (mozjs_anon_sym_COMMA, 311), (mozjs_anon_sym_RBRACE, 372),
     (mozjs_anon_sym_import, 315), (mozjs_anon_sym_let, 305),
     (mozjs_anon_sym_using, 317), (mozjs_anon_sym_await, 319),
     (mozjs_anon_sym_LPAREN, 321), (mozjs_anon_sym_SEMI, 311),
     (mozjs_anon_sym_in, 307), (mozjs_anon_sym_COLON, 325),
     (mozjs_anon_sym_yield, 57), (mozjs_anon_sym_EQ, 328),
     (mozjs_anon_sym_LBRACK, 330), (mozjs_anon_sym_LT, 333),
     (mozjs_anon_sym_GT, 307), (mozjs_anon_sym_DOT, 307),
     (mozjs_anon_sym_DQUOTE, 63), (mozjs_anon_sym_SQUOTE, 65),
     (mozjs_anon_sym_class, 336), (mozjs_anon_sym_async, 338),
     (mozjs_anon_sym_function, 340), (mozjs_anon_sym_EQ_GT, 342),
     (mozjs_sym_optional_chain, 311), (mozjs_anon_sym_new, 73),
     (mozjs_anon_sym_PLUS_EQ, 344), (mozjs_anon_sym_DASH_EQ, 344),
     (mozjs_anon_sym_STAR_EQ, 344), (mozjs_anon_sym_SLASH_EQ, 344),
     (mozjs_anon_sym_PERCENT_EQ, 344), (mozjs_anon_sym_CARET_EQ, 344),
     (mozjs_anon_sym_AMP_EQ, 344), (mozjs_anon_sym_PIPE_EQ, 344),
     (mozjs_anon_sym_GT_GT_EQ, 344), (mozjs_anon_sym_GT_GT_GT_EQ, 344),
     (mozjs_anon_sym_LT_LT_EQ, 344), (mozjs_anon_sym_STAR_STAR_EQ, 344),
     (mozjs_anon_sym_AMP_AMP_EQ, 344), (mozjs_anon_sym_PIPE_PIPE_EQ, 344),
     (mozjs_anon_sym_QMARK_QMARK_EQ, 344), (mozjs_anon_sym_AMP_AMP, 307),
     (mozjs_anon_sym_PIPE_PIPE, 307), (mozjs_anon_sym_GT_GT, 307),
     (mozjs_anon_sym_GT_GT_GT, 307), (mozjs_anon_sym_LT_LT, 307),
     (mozjs_anon_sym_AMP, 307), (mozjs_anon_sym_CARET, 307),
     (mozjs_anon_sym_PIPE, 307), (mozjs_anon_sym_PLUS, 346),
     (mozjs_anon_sym_DASH, 346), (mozjs_anon_sym_SLASH, 349),
     (mozjs_anon_sym_PERCENT, 307), (mozjs_anon_sym_STAR_STAR, 307),
     (mozjs_anon_sym_LT_EQ, 311), (mozjs_anon_sym_EQ_EQ, 307),
     (mozjs_anon_sym_EQ_EQ_EQ, 311), (mozjs_anon_sym_BANG_EQ, 307),
     (mozjs_anon_sym_BANG_EQ_EQ, 311), (mozjs_anon_sym_GT_EQ, 311),
     (mozjs_anon_sym_QMARK_QMARK, 307), (mozjs_anon_sym_instanceof, 307),
     (mozjs_anon_sym_BANG, 75), (mozjs_anon_sym_TILDE, 79),
     (mozjs_anon_sym_typeof, 75), (mozjs_anon_sym_void, 75),
     (mozjs_anon_sym_delete, 75), (mozjs_anon_sym_PLUS_PLUS, 352),
     (mozjs_anon_sym_DASH_DASH, 352), (mozjs_sym_comment, 5),
     (mozjs_anon_sym_BQUOTE, 355), (mozjs_sym_number, 85),
     (mozjs_sym_private_property_identifier, 358), (mozjs_sym_this, 89),
     (mozjs_sym_super, 89), (mozjs_sym_true, 89),
     (mozjs_sym_false, 89), (mozjs_sym_null, 89),
     (mozjs_sym_undefined, 91), (mozjs_anon_sym_AT, 93),
     (mozjs_anon_sym_static, 305), (mozjs_anon_sym_get, 305),
     (mozjs_anon_sym_set, 305), (mozjs_sym__automatic_semicolon, 311),
     (mozjs_sym__ternary_qmark, 311), (mozjs_sym_html_comment, 5)]"

definition mozjs_parse_row_14 :: "(TSSymbol \<times> nat) list" where
  "mozjs_parse_row_14 =
    [(mozjs_sym_import, 1333), (mozjs_sym_parenthesized_expression, 556),
     (mozjs_sym_expression, 698), (mozjs_sym_primary_expression, 693),
     (mozjs_sym_yield_expression, 743), (mozjs_sym_object, 793),
     (mozjs_sym_object_pattern, 1845), (mozjs_sym_array, 793),
     (mozjs_sym_array_pattern, 1845), (mozjs_sym_jsx_element, 743),
     (mozjs_sym_jsx_opening_element, 1158), (mozjs_sym_jsx_self_closing_element, 743),
     (mozjs_sym_class, 793), (mozjs_sym_function_expression, 793),
     (mozjs_sym_generator_function, 793), (mozjs_sym_arrow_function, 793),
     (mozjs_sym_call_expression, 793), (mozjs_sym_new_expression, 692),
     (mozjs_sym_await_expression, 743), (mozjs_sym_member_expression, 556),
     (mozjs_sym_subscript_expression, 556), (mozjs_sym_assignment_expression, 743),
     (mozjs_sym__augmented_assignment_lhs, 1146), (mozjs_sym_augmented_assignment_expression,
       743),
     (mozjs_sym__destructuring_pattern, 1845), (mozjs_sym_ternary_expression, 743),
     (mozjs_sym_binary_expression, 743), (mozjs_sym_unary_expression, 743),
     (mozjs_sym_update_expression, 743), (mozjs_sym_string, 793),
     (mozjs_sym_template_string, 793), (mozjs_sym_regex, 793),
     (mozjs_sym_meta_property, 793), (mozjs_sym_decorator, 1112),
     (mozjs_sym_formal_parameters, 1847), (mozjs_aux_sym_export_statement_repeat1, 1331),
     (mozjs_aux_sym_object_repeat1, 1442), (mozjs_aux_sym_object_pattern_repeat1, 1414),
     (mozjs_sym_identifier, 303), (mozjs_anon_sym_export, 305),
     (mozjs_anon_sym_STAR, 307), (mozjs_anon_sym_LBRACE, 309),
     (mozjs_anon_sym_COMMA, 311), (mozjs_anon_sym_RBRACE, 374),
     (mozjs_anon_sym_import, 315), (mozjs_anon_sym_let, 305),
     (mozjs_anon_sym_using, 317), (mozjs_anon_sym_await, 319),
     (mozjs_anon_sym_LPAREN, 321), (mozjs_anon_sym_SEMI, 311),
     (mozjs_anon_sym_in, 307), (mozjs_anon_sym_COLON, 325),
     (mozjs_anon_sym_yield, 57), (mozjs_anon_sym_EQ, 328),
     (mozjs_anon_sym_LBRACK, 330), (mozjs_anon_sym_LT, 333),
     (mozjs_anon_sym_GT, 307), (mozjs_anon_sym_DOT, 307),
     (mozjs_anon_sym_DQUOTE, 63), (mozjs_anon_sym_SQUOTE, 65),
     (mozjs_anon_sym_class, 336), (mozjs_anon_sym_async, 338),
     (mozjs_anon_sym_function, 340), (mozjs_anon_sym_EQ_GT, 342),
     (mozjs_sym_optional_chain, 311), (mozjs_anon_sym_new, 73),
     (mozjs_anon_sym_PLUS_EQ, 344), (mozjs_anon_sym_DASH_EQ, 344),
     (mozjs_anon_sym_STAR_EQ, 344), (mozjs_anon_sym_SLASH_EQ, 344),
     (mozjs_anon_sym_PERCENT_EQ, 344), (mozjs_anon_sym_CARET_EQ, 344),
     (mozjs_anon_sym_AMP_EQ, 344), (mozjs_anon_sym_PIPE_EQ, 344),
     (mozjs_anon_sym_GT_GT_EQ, 344), (mozjs_anon_sym_GT_GT_GT_EQ, 344),
     (mozjs_anon_sym_LT_LT_EQ, 344), (mozjs_anon_sym_STAR_STAR_EQ, 344),
     (mozjs_anon_sym_AMP_AMP_EQ, 344), (mozjs_anon_sym_PIPE_PIPE_EQ, 344),
     (mozjs_anon_sym_QMARK_QMARK_EQ, 344), (mozjs_anon_sym_AMP_AMP, 307),
     (mozjs_anon_sym_PIPE_PIPE, 307), (mozjs_anon_sym_GT_GT, 307),
     (mozjs_anon_sym_GT_GT_GT, 307), (mozjs_anon_sym_LT_LT, 307),
     (mozjs_anon_sym_AMP, 307), (mozjs_anon_sym_CARET, 307),
     (mozjs_anon_sym_PIPE, 307), (mozjs_anon_sym_PLUS, 346),
     (mozjs_anon_sym_DASH, 346), (mozjs_anon_sym_SLASH, 349),
     (mozjs_anon_sym_PERCENT, 307), (mozjs_anon_sym_STAR_STAR, 307),
     (mozjs_anon_sym_LT_EQ, 311), (mozjs_anon_sym_EQ_EQ, 307),
     (mozjs_anon_sym_EQ_EQ_EQ, 311), (mozjs_anon_sym_BANG_EQ, 307),
     (mozjs_anon_sym_BANG_EQ_EQ, 311), (mozjs_anon_sym_GT_EQ, 311),
     (mozjs_anon_sym_QMARK_QMARK, 307), (mozjs_anon_sym_instanceof, 307),
     (mozjs_anon_sym_BANG, 75), (mozjs_anon_sym_TILDE, 79),
     (mozjs_anon_sym_typeof, 75), (mozjs_anon_sym_void, 75),
     (mozjs_anon_sym_delete, 75), (mozjs_anon_sym_PLUS_PLUS, 352),
     (mozjs_anon_sym_DASH_DASH, 352), (mozjs_sym_comment, 5),
     (mozjs_anon_sym_BQUOTE, 355), (mozjs_sym_number, 85),
     (mozjs_sym_private_property_identifier, 358), (mozjs_sym_this, 89),
     (mozjs_sym_super, 89), (mozjs_sym_true, 89),
     (mozjs_sym_false, 89), (mozjs_sym_null, 89),
     (mozjs_sym_undefined, 91), (mozjs_anon_sym_AT, 93),
     (mozjs_anon_sym_static, 305), (mozjs_anon_sym_get, 305),
     (mozjs_anon_sym_set, 305), (mozjs_sym__automatic_semicolon, 311),
     (mozjs_sym__ternary_qmark, 311), (mozjs_sym_html_comment, 5)]"

definition mozjs_parse_row_15 :: "(TSSymbol \<times> nat) list" where
  "mozjs_parse_row_15 =
    [(mozjs_sym_export_statement, 422), (mozjs_sym_declaration, 422),
     (mozjs_sym_import, 1333), (mozjs_sym_import_statement, 422),
     (mozjs_sym_statement, 21), (mozjs_sym_expression_statement, 422),
     (mozjs_sym_variable_declaration, 427), (mozjs_sym_lexical_declaration, 427),
     (mozjs_sym_using_declaration, 427), (mozjs_sym_statement_block, 422),
     (mozjs_sym_if_statement, 422), (mozjs_sym_switch_statement, 422),
     (mozjs_sym_for_statement, 422), (mozjs_sym_for_in_statement, 422),
     (mozjs_sym_while_statement, 422), (mozjs_sym_do_statement, 422),
     (mozjs_sym_try_statement, 422), (mozjs_sym_with_statement, 422),
     (mozjs_sym_break_statement, 422), (mozjs_sym_continue_statement, 422),
     (mozjs_sym_debugger_statement, 422), (mozjs_sym_return_statement, 422),
     (mozjs_sym_throw_statement, 422), (mozjs_sym_empty_statement, 422),
     (mozjs_sym_labeled_statement, 422), (mozjs_sym_parenthesized_expression, 556),
     (mozjs_sym_expression, 823), (mozjs_sym_primary_expression, 693),
     (mozjs_sym_yield_expression, 743), (mozjs_sym_object, 793),
     (mozjs_sym_object_pattern, 1845), (mozjs_sym_array, 793),
     (mozjs_sym_array_pattern, 1845), (mozjs_sym_jsx_element, 743),
     (mozjs_sym_jsx_opening_element, 1158), (mozjs_sym_jsx_self_closing_element, 743),
     (mozjs_sym_class, 793), (mozjs_sym_class_declaration, 427),
     (mozjs_sym_function_expression, 793), (mozjs_sym_function_declaration, 427),
     (mozjs_sym_generator_function, 793), (mozjs_sym_generator_function_declaration, 427),
     (mozjs_sym_arrow_function, 793), (mozjs_sym_call_expression, 793),
     (mozjs_sym_new_expression, 692), (mozjs_sym_await_expression, 743),
     (mozjs_sym_member_expression, 556), (mozjs_sym_subscript_expression, 556),
     (mozjs_sym_assignment_expression, 743), (mozjs_sym__augmented_assignment_lhs, 1146),
     (mozjs_sym_augmented_assignment_expression, 743), (mozjs_sym__destructuring_pattern, 1845),
     (mozjs_sym_ternary_expression, 743), (mozjs_sym_binary_expression, 743),
     (mozjs_sym_unary_expression, 743), (mozjs_sym_update_expression, 743),
     (mozjs_sym_sequence_expression, 1743), (mozjs_sym_string, 793),
     (mozjs_sym_template_string, 793), (mozjs_sym_regex, 793),
     (mozjs_sym_meta_property, 793), (mozjs_sym_decorator, 1112),
     (mozjs_sym_formal_parameters, 1847), (mozjs_aux_sym_program_repeat1, 21),
     (mozjs_aux_sym_export_statement_repeat1, 1278), (ts_builtin_sym_end, 376),
     (mozjs_sym_identifier, 9), (mozjs_anon_sym_export, 13),
     (mozjs_anon_sym_LBRACE, 15), (mozjs_anon_sym_import, 17),
     (mozjs_anon_sym_with, 19), (mozjs_anon_sym_var, 21),
     (mozjs_anon_sym_let, 23), (mozjs_anon_sym_const, 25),
     (mozjs_anon_sym_using, 27), (mozjs_anon_sym_await, 29),
     (mozjs_anon_sym_if, 31), (mozjs_anon_sym_switch, 33),
     (mozjs_anon_sym_for, 35), (mozjs_anon_sym_LPAREN, 37),
     (mozjs_anon_sym_SEMI, 39), (mozjs_anon_sym_while, 41),
     (mozjs_anon_sym_do, 43), (mozjs_anon_sym_try, 45),
     (mozjs_anon_sym_break, 47), (mozjs_anon_sym_continue, 49),
     (mozjs_anon_sym_debugger, 51), (mozjs_anon_sym_return, 53),
     (mozjs_anon_sym_throw, 55), (mozjs_anon_sym_yield, 57),
     (mozjs_anon_sym_LBRACK, 59), (mozjs_anon_sym_LT, 61),
     (mozjs_anon_sym_DQUOTE, 63), (mozjs_anon_sym_SQUOTE, 65),
     (mozjs_anon_sym_class, 67), (mozjs_anon_sym_async, 69),
     (mozjs_anon_sym_function, 71), (mozjs_anon_sym_new, 73),
     (mozjs_anon_sym_PLUS, 75), (mozjs_anon_sym_DASH, 75),
     (mozjs_anon_sym_SLASH, 77), (mozjs_anon_sym_BANG, 79),
     (mozjs_anon_sym_TILDE, 79), (mozjs_anon_sym_typeof, 75),
     (mozjs_anon_sym_void, 75), (mozjs_anon_sym_delete, 75),
     (mozjs_anon_sym_PLUS_PLUS, 81), (mozjs_anon_sym_DASH_DASH, 81),
     (mozjs_sym_comment, 5), (mozjs_anon_sym_BQUOTE, 83),
     (mozjs_sym_number, 85), (mozjs_sym_private_property_identifier, 87),
     (mozjs_sym_this, 89), (mozjs_sym_super, 89),
     (mozjs_sym_true, 89), (mozjs_sym_false, 89),
     (mozjs_sym_null, 89), (mozjs_sym_undefined, 91),
     (mozjs_anon_sym_AT, 93), (mozjs_anon_sym_static, 95),
     (mozjs_anon_sym_get, 95), (mozjs_anon_sym_set, 95),
     (mozjs_sym_preproc, 97), (mozjs_sym_html_comment, 5)]"

definition mozjs_parse_row_16 :: "(TSSymbol \<times> nat) list" where
  "mozjs_parse_row_16 =
    [(mozjs_sym_export_statement, 422), (mozjs_sym_declaration, 422),
     (mozjs_sym_import, 1333), (mozjs_sym_import_statement, 422),
     (mozjs_sym_statement, 28), (mozjs_sym_expression_statement, 422),
     (mozjs_sym_variable_declaration, 427), (mozjs_sym_lexical_declaration, 427),
     (mozjs_sym_using_declaration, 427), (mozjs_sym_statement_block, 422),
     (mozjs_sym_if_statement, 422), (mozjs_sym_switch_statement, 422),
     (mozjs_sym_for_statement, 422), (mozjs_sym_for_in_statement, 422),
     (mozjs_sym_while_statement, 422), (mozjs_sym_do_statement, 422),
     (mozjs_sym_try_statement, 422), (mozjs_sym_with_statement, 422),
     (mozjs_sym_break_statement, 422), (mozjs_sym_continue_statement, 422),
     (mozjs_sym_debugger_statement, 422), (mozjs_sym_return_statement, 422),
     (mozjs_sym_throw_statement, 422), (mozjs_sym_empty_statement, 422),
     (mozjs_sym_labeled_statement, 422), (mozjs_sym_parenthesized_expression, 556),
     (mozjs_sym_expression, 823), (mozjs_sym_primary_expression, 693),
     (mozjs_sym_yield_expression, 743), (mozjs_sym_object, 793),
     (mozjs_sym_object_pattern, 1845), (mozjs_sym_array, 793),
     (mozjs_sym_array_pattern, 1845), (mozjs_sym_jsx_element, 743),
     (mozjs_sym_jsx_opening_element, 1158), (mozjs_sym_jsx_self_closing_element, 743),
     (mozjs_sym_class, 793), (mozjs_sym_class_declaration, 427),
     (mozjs_sym_function_expression, 793), (mozjs_sym_function_declaration, 427),
     (mozjs_sym_generator_function, 793), (mozjs_sym_generator_function_declaration, 427),
     (mozjs_sym_arrow_function, 793), (mozjs_sym_call_expression, 793),
     (mozjs_sym_new_expression, 692), (mozjs_sym_await_expression, 743),
     (mozjs_sym_member_expression, 556), (mozjs_sym_subscript_expression, 556),
     (mozjs_sym_assignment_expression, 743), (mozjs_sym__augmented_assignment_lhs, 1146),
     (mozjs_sym_augmented_assignment_expression, 743), (mozjs_sym__destructuring_pattern, 1845),
     (mozjs_sym_ternary_expression, 743), (mozjs_sym_binary_expression, 743),
     (mozjs_sym_unary_expression, 743), (mozjs_sym_update_expression, 743),
     (mozjs_sym_sequence_expression, 1743), (mozjs_sym_string, 793),
     (mozjs_sym_template_string, 793), (mozjs_sym_regex, 793),
     (mozjs_sym_meta_property, 793), (mozjs_sym_decorator, 1112),
     (mozjs_sym_formal_parameters, 1847), (mozjs_aux_sym_program_repeat1, 28),
     (mozjs_aux_sym_export_statement_repeat1, 1278), (mozjs_sym_identifier, 9),
     (mozjs_anon_sym_export, 13), (mozjs_anon_sym_LBRACE, 15),
     (mozjs_anon_sym_RBRACE, 378), (mozjs_anon_sym_import, 17),
     (mozjs_anon_sym_with, 19), (mozjs_anon_sym_var, 21),
     (mozjs_anon_sym_let, 23), (mozjs_anon_sym_const, 25),
     (mozjs_anon_sym_using, 27), (mozjs_anon_sym_await, 29),
     (mozjs_anon_sym_if, 31), (mozjs_anon_sym_switch, 33),
     (mozjs_anon_sym_for, 35), (mozjs_anon_sym_LPAREN, 37),
     (mozjs_anon_sym_SEMI, 39), (mozjs_anon_sym_while, 41),
     (mozjs_anon_sym_do, 43), (mozjs_anon_sym_try, 45),
     (mozjs_anon_sym_break, 47), (mozjs_anon_sym_continue, 49),
     (mozjs_anon_sym_debugger, 51), (mozjs_anon_sym_return, 53),
     (mozjs_anon_sym_throw, 55), (mozjs_anon_sym_yield, 57),
     (mozjs_anon_sym_LBRACK, 59), (mozjs_anon_sym_LT, 61),
     (mozjs_anon_sym_DQUOTE, 63), (mozjs_anon_sym_SQUOTE, 65),
     (mozjs_anon_sym_class, 67), (mozjs_anon_sym_async, 69),
     (mozjs_anon_sym_function, 71), (mozjs_anon_sym_new, 73),
     (mozjs_anon_sym_PLUS, 75), (mozjs_anon_sym_DASH, 75),
     (mozjs_anon_sym_SLASH, 77), (mozjs_anon_sym_BANG, 79),
     (mozjs_anon_sym_TILDE, 79), (mozjs_anon_sym_typeof, 75),
     (mozjs_anon_sym_void, 75), (mozjs_anon_sym_delete, 75),
     (mozjs_anon_sym_PLUS_PLUS, 81), (mozjs_anon_sym_DASH_DASH, 81),
     (mozjs_sym_comment, 5), (mozjs_anon_sym_BQUOTE, 83),
     (mozjs_sym_number, 85), (mozjs_sym_private_property_identifier, 87),
     (mozjs_sym_this, 89), (mozjs_sym_super, 89),
     (mozjs_sym_true, 89), (mozjs_sym_false, 89),
     (mozjs_sym_null, 89), (mozjs_sym_undefined, 91),
     (mozjs_anon_sym_AT, 93), (mozjs_anon_sym_static, 95),
     (mozjs_anon_sym_get, 95), (mozjs_anon_sym_set, 95),
     (mozjs_sym_preproc, 97), (mozjs_sym_html_comment, 5)]"

definition mozjs_parse_row_17 :: "(TSSymbol \<times> nat) list" where
  "mozjs_parse_row_17 =
    [(mozjs_sym_export_statement, 422), (mozjs_sym_declaration, 422),
     (mozjs_sym_import, 1333), (mozjs_sym_import_statement, 422),
     (mozjs_sym_statement, 7), (mozjs_sym_expression_statement, 422),
     (mozjs_sym_variable_declaration, 427), (mozjs_sym_lexical_declaration, 427),
     (mozjs_sym_using_declaration, 427), (mozjs_sym_statement_block, 422),
     (mozjs_sym_if_statement, 422), (mozjs_sym_switch_statement, 422),
     (mozjs_sym_for_statement, 422), (mozjs_sym_for_in_statement, 422),
     (mozjs_sym_while_statement, 422), (mozjs_sym_do_statement, 422),
     (mozjs_sym_try_statement, 422), (mozjs_sym_with_statement, 422),
     (mozjs_sym_break_statement, 422), (mozjs_sym_continue_statement, 422),
     (mozjs_sym_debugger_statement, 422), (mozjs_sym_return_statement, 422),
     (mozjs_sym_throw_statement, 422), (mozjs_sym_empty_statement, 422),
     (mozjs_sym_labeled_statement, 422), (mozjs_sym_parenthesized_expression, 556),
     (mozjs_sym_expression, 823), (mozjs_sym_primary_expression, 693),
     (mozjs_sym_yield_expression, 743), (mozjs_sym_object, 793),
     (mozjs_sym_object_pattern, 1845), (mozjs_sym_array, 793),
     (mozjs_sym_array_pattern, 1845), (mozjs_sym_jsx_element, 743),
     (mozjs_sym_jsx_opening_element, 1158), (mozjs_sym_jsx_self_closing_element, 743),
     (mozjs_sym_class, 793), (mozjs_sym_class_declaration, 427),
     (mozjs_sym_function_expression, 793), (mozjs_sym_function_declaration, 427),
     (mozjs_sym_generator_function, 793), (mozjs_sym_generator_function_declaration, 427),
     (mozjs_sym_arrow_function, 793), (mozjs_sym_call_expression, 793),
     (mozjs_sym_new_expression, 692), (mozjs_sym_await_expression, 743),
     (mozjs_sym_member_expression, 556), (mozjs_sym_subscript_expression, 556),
     (mozjs_sym_assignment_expression, 743), (mozjs_sym__augmented_assignment_lhs, 1146),
     (mozjs_sym_augmented_assignment_expression, 743), (mozjs_sym__destructuring_pattern, 1845),
     (mozjs_sym_ternary_expression, 743), (mozjs_sym_binary_expression, 743),
     (mozjs_sym_unary_expression, 743), (mozjs_sym_update_expression, 743),
     (mozjs_sym_sequence_expression, 1743), (mozjs_sym_string, 793),
     (mozjs_sym_template_string, 793), (mozjs_sym_regex, 793),
     (mozjs_sym_meta_property, 793), (mozjs_sym_decorator, 1112),
     (mozjs_sym_formal_parameters, 1847), (mozjs_aux_sym_program_repeat1, 7),
     (mozjs_aux_sym_export_statement_repeat1, 1278), (mozjs_sym_identifier, 9),
     (mozjs_anon_sym_export, 13), (mozjs_anon_sym_LBRACE, 15),
     (mozjs_anon_sym_RBRACE, 380), (mozjs_anon_sym_import, 17),
     (mozjs_anon_sym_with, 19), (mozjs_anon_sym_var, 21),
     (mozjs_anon_sym_let, 23), (mozjs_anon_sym_const, 25),
     (mozjs_anon_sym_using, 27), (mozjs_anon_sym_await, 29),
     (mozjs_anon_sym_if, 31), (mozjs_anon_sym_switch, 33),
     (mozjs_anon_sym_for, 35), (mozjs_anon_sym_LPAREN, 37),
     (mozjs_anon_sym_SEMI, 39), (mozjs_anon_sym_while, 41),
     (mozjs_anon_sym_do, 43), (mozjs_anon_sym_try, 45),
     (mozjs_anon_sym_break, 47), (mozjs_anon_sym_continue, 49),
     (mozjs_anon_sym_debugger, 51), (mozjs_anon_sym_return, 53),
     (mozjs_anon_sym_throw, 55), (mozjs_anon_sym_yield, 57),
     (mozjs_anon_sym_LBRACK, 59), (mozjs_anon_sym_LT, 61),
     (mozjs_anon_sym_DQUOTE, 63), (mozjs_anon_sym_SQUOTE, 65),
     (mozjs_anon_sym_class, 67), (mozjs_anon_sym_async, 69),
     (mozjs_anon_sym_function, 71), (mozjs_anon_sym_new, 73),
     (mozjs_anon_sym_PLUS, 75), (mozjs_anon_sym_DASH, 75),
     (mozjs_anon_sym_SLASH, 77), (mozjs_anon_sym_BANG, 79),
     (mozjs_anon_sym_TILDE, 79), (mozjs_anon_sym_typeof, 75),
     (mozjs_anon_sym_void, 75), (mozjs_anon_sym_delete, 75),
     (mozjs_anon_sym_PLUS_PLUS, 81), (mozjs_anon_sym_DASH_DASH, 81),
     (mozjs_sym_comment, 5), (mozjs_anon_sym_BQUOTE, 83),
     (mozjs_sym_number, 85), (mozjs_sym_private_property_identifier, 87),
     (mozjs_sym_this, 89), (mozjs_sym_super, 89),
     (mozjs_sym_true, 89), (mozjs_sym_false, 89),
     (mozjs_sym_null, 89), (mozjs_sym_undefined, 91),
     (mozjs_anon_sym_AT, 93), (mozjs_anon_sym_static, 95),
     (mozjs_anon_sym_get, 95), (mozjs_anon_sym_set, 95),
     (mozjs_sym_preproc, 97), (mozjs_sym_html_comment, 5)]"

definition mozjs_parse_row_18 :: "(TSSymbol \<times> nat) list" where
  "mozjs_parse_row_18 =
    [(mozjs_sym_export_statement, 422), (mozjs_sym_declaration, 422),
     (mozjs_sym_import, 1333), (mozjs_sym_import_statement, 422),
     (mozjs_sym_statement, 17), (mozjs_sym_expression_statement, 422),
     (mozjs_sym_variable_declaration, 427), (mozjs_sym_lexical_declaration, 427),
     (mozjs_sym_using_declaration, 427), (mozjs_sym_statement_block, 422),
     (mozjs_sym_if_statement, 422), (mozjs_sym_switch_statement, 422),
     (mozjs_sym_for_statement, 422), (mozjs_sym_for_in_statement, 422),
     (mozjs_sym_while_statement, 422), (mozjs_sym_do_statement, 422),
     (mozjs_sym_try_statement, 422), (mozjs_sym_with_statement, 422),
     (mozjs_sym_break_statement, 422), (mozjs_sym_continue_statement, 422),
     (mozjs_sym_debugger_statement, 422), (mozjs_sym_return_statement, 422),
     (mozjs_sym_throw_statement, 422), (mozjs_sym_empty_statement, 422),
     (mozjs_sym_labeled_statement, 422), (mozjs_sym_parenthesized_expression, 556),
     (mozjs_sym_expression, 823), (mozjs_sym_primary_expression, 693),
     (mozjs_sym_yield_expression, 743), (mozjs_sym_object, 793),
     (mozjs_sym_object_pattern, 1845), (mozjs_sym_array, 793),
     (mozjs_sym_array_pattern, 1845), (mozjs_sym_jsx_element, 743),
     (mozjs_sym_jsx_opening_element, 1158), (mozjs_sym_jsx_self_closing_element, 743),
     (mozjs_sym_class, 793), (mozjs_sym_class_declaration, 427),
     (mozjs_sym_function_expression, 793), (mozjs_sym_function_declaration, 427),
     (mozjs_sym_generator_function, 793), (mozjs_sym_generator_function_declaration, 427),
     (mozjs_sym_arrow_function, 793), (mozjs_sym_call_expression, 793),
     (mozjs_sym_new_expression, 692), (mozjs_sym_await_expression, 743),
     (mozjs_sym_member_expression, 556), (mozjs_sym_subscript_expression, 556),
     (mozjs_sym_assignment_expression, 743), (mozjs_sym__augmented_assignment_lhs, 1146),
     (mozjs_sym_augmented_assignment_expression, 743), (mozjs_sym__destructuring_pattern, 1845),
     (mozjs_sym_ternary_expression, 743), (mozjs_sym_binary_expression, 743),
     (mozjs_sym_unary_expression, 743), (mozjs_sym_update_expression, 743),
     (mozjs_sym_sequence_expression, 1743), (mozjs_sym_string, 793),
     (mozjs_sym_template_string, 793), (mozjs_sym_regex, 793),
     (mozjs_sym_meta_property, 793), (mozjs_sym_decorator, 1112),
     (mozjs_sym_formal_parameters, 1847), (mozjs_aux_sym_program_repeat1, 17),
     (mozjs_aux_sym_export_statement_repeat1, 1278), (mozjs_sym_identifier, 9),
     (mozjs_anon_sym_export, 13), (mozjs_anon_sym_LBRACE, 15),
     (mozjs_anon_sym_RBRACE, 382), (mozjs_anon_sym_import, 17),
     (mozjs_anon_sym_with, 19), (mozjs_anon_sym_var, 21),
     (mozjs_anon_sym_let, 23), (mozjs_anon_sym_const, 25),
     (mozjs_anon_sym_using, 27), (mozjs_anon_sym_await, 29),
     (mozjs_anon_sym_if, 31), (mozjs_anon_sym_switch, 33),
     (mozjs_anon_sym_for, 35), (mozjs_anon_sym_LPAREN, 37),
     (mozjs_anon_sym_SEMI, 39), (mozjs_anon_sym_while, 41),
     (mozjs_anon_sym_do, 43), (mozjs_anon_sym_try, 45),
     (mozjs_anon_sym_break, 47), (mozjs_anon_sym_continue, 49),
     (mozjs_anon_sym_debugger, 51), (mozjs_anon_sym_return, 53),
     (mozjs_anon_sym_throw, 55), (mozjs_anon_sym_yield, 57),
     (mozjs_anon_sym_LBRACK, 59), (mozjs_anon_sym_LT, 61),
     (mozjs_anon_sym_DQUOTE, 63), (mozjs_anon_sym_SQUOTE, 65),
     (mozjs_anon_sym_class, 67), (mozjs_anon_sym_async, 69),
     (mozjs_anon_sym_function, 71), (mozjs_anon_sym_new, 73),
     (mozjs_anon_sym_PLUS, 75), (mozjs_anon_sym_DASH, 75),
     (mozjs_anon_sym_SLASH, 77), (mozjs_anon_sym_BANG, 79),
     (mozjs_anon_sym_TILDE, 79), (mozjs_anon_sym_typeof, 75),
     (mozjs_anon_sym_void, 75), (mozjs_anon_sym_delete, 75),
     (mozjs_anon_sym_PLUS_PLUS, 81), (mozjs_anon_sym_DASH_DASH, 81),
     (mozjs_sym_comment, 5), (mozjs_anon_sym_BQUOTE, 83),
     (mozjs_sym_number, 85), (mozjs_sym_private_property_identifier, 87),
     (mozjs_sym_this, 89), (mozjs_sym_super, 89),
     (mozjs_sym_true, 89), (mozjs_sym_false, 89),
     (mozjs_sym_null, 89), (mozjs_sym_undefined, 91),
     (mozjs_anon_sym_AT, 93), (mozjs_anon_sym_static, 95),
     (mozjs_anon_sym_get, 95), (mozjs_anon_sym_set, 95),
     (mozjs_sym_preproc, 97), (mozjs_sym_html_comment, 5)]"

definition mozjs_parse_row_19 :: "(TSSymbol \<times> nat) list" where
  "mozjs_parse_row_19 =
    [(mozjs_sym_import, 1340), (mozjs_sym_parenthesized_expression, 525),
     (mozjs_sym_expression, 586), (mozjs_sym_primary_expression, 584),
     (mozjs_sym_yield_expression, 638), (mozjs_sym_object, 645),
     (mozjs_sym_object_pattern, 1827), (mozjs_sym_array, 645),
     (mozjs_sym_array_pattern, 1827), (mozjs_sym_jsx_element, 638),
     (mozjs_sym_jsx_opening_element, 1152), (mozjs_sym_jsx_self_closing_element, 638),
     (mozjs_sym_class, 645), (mozjs_sym_function_expression, 645),
     (mozjs_sym_generator_function, 645), (mozjs_sym_arrow_function, 645),
     (mozjs_sym_call_expression, 645), (mozjs_sym_new_expression, 587),
     (mozjs_sym_await_expression, 638), (mozjs_sym_member_expression, 525),
     (mozjs_sym_subscript_expression, 525), (mozjs_sym_assignment_expression, 638),
     (mozjs_sym__augmented_assignment_lhs, 1145), (mozjs_sym_augmented_assignment_expression,
       638),
     (mozjs_sym__destructuring_pattern, 1827), (mozjs_sym_ternary_expression, 638),
     (mozjs_sym_binary_expression, 638), (mozjs_sym_unary_expression, 638),
     (mozjs_sym_update_expression, 638), (mozjs_sym_string, 645),
     (mozjs_sym_template_string, 645), (mozjs_sym_regex, 645),
     (mozjs_sym_meta_property, 645), (mozjs_sym_decorator, 1112),
     (mozjs_sym_formal_parameters, 1777), (mozjs_aux_sym_export_statement_repeat1, 1395),
     (mozjs_sym_identifier, 384), (mozjs_anon_sym_export, 386),
     (mozjs_anon_sym_STAR, 307), (mozjs_anon_sym_LBRACE, 388),
     (mozjs_anon_sym_COMMA, 311), (mozjs_anon_sym_RBRACE, 311),
     (mozjs_anon_sym_import, 390), (mozjs_anon_sym_let, 386),
     (mozjs_anon_sym_await, 392), (mozjs_anon_sym_LPAREN, 394),
     (mozjs_anon_sym_SEMI, 311), (mozjs_anon_sym_RPAREN, 311),
     (mozjs_anon_sym_in, 307), (mozjs_anon_sym_COLON, 311),
     (mozjs_anon_sym_yield, 397), (mozjs_anon_sym_EQ, 399),
     (mozjs_anon_sym_LBRACK, 401), (mozjs_anon_sym_RBRACK, 311),
     (mozjs_anon_sym_LT, 404), (mozjs_anon_sym_GT, 307),
     (mozjs_anon_sym_DOT, 307), (mozjs_anon_sym_DQUOTE, 407),
     (mozjs_anon_sym_SQUOTE, 409), (mozjs_anon_sym_class, 411),
     (mozjs_anon_sym_async, 413), (mozjs_anon_sym_function, 415),
     (mozjs_anon_sym_EQ_GT, 417), (mozjs_sym_optional_chain, 311),
     (mozjs_anon_sym_new, 419), (mozjs_anon_sym_PLUS_EQ, 344),
     (mozjs_anon_sym_DASH_EQ, 344), (mozjs_anon_sym_STAR_EQ, 344),
     (mozjs_anon_sym_SLASH_EQ, 344), (mozjs_anon_sym_PERCENT_EQ, 344),
     (mozjs_anon_sym_CARET_EQ, 344), (mozjs_anon_sym_AMP_EQ, 344),
     (mozjs_anon_sym_PIPE_EQ, 344), (mozjs_anon_sym_GT_GT_EQ, 344),
     (mozjs_anon_sym_GT_GT_GT_EQ, 344), (mozjs_anon_sym_LT_LT_EQ, 344),
     (mozjs_anon_sym_STAR_STAR_EQ, 344), (mozjs_anon_sym_AMP_AMP_EQ, 344),
     (mozjs_anon_sym_PIPE_PIPE_EQ, 344), (mozjs_anon_sym_QMARK_QMARK_EQ, 344),
     (mozjs_anon_sym_AMP_AMP, 307), (mozjs_anon_sym_PIPE_PIPE, 307),
     (mozjs_anon_sym_GT_GT, 307), (mozjs_anon_sym_GT_GT_GT, 307),
     (mozjs_anon_sym_LT_LT, 307), (mozjs_anon_sym_AMP, 307),
     (mozjs_anon_sym_CARET, 307), (mozjs_anon_sym_PIPE, 307),
     (mozjs_anon_sym_PLUS, 421), (mozjs_anon_sym_DASH, 421),
     (mozjs_anon_sym_SLASH, 424), (mozjs_anon_sym_PERCENT, 307),
     (mozjs_anon_sym_STAR_STAR, 307), (mozjs_anon_sym_LT_EQ, 311),
     (mozjs_anon_sym_EQ_EQ, 307), (mozjs_anon_sym_EQ_EQ_EQ, 311),
     (mozjs_anon_sym_BANG_EQ, 307), (mozjs_anon_sym_BANG_EQ_EQ, 311),
     (mozjs_anon_sym_GT_EQ, 311), (mozjs_anon_sym_QMARK_QMARK, 307),
     (mozjs_anon_sym_instanceof, 307), (mozjs_anon_sym_BANG, 427),
     (mozjs_anon_sym_TILDE, 429), (mozjs_anon_sym_typeof, 427),
     (mozjs_anon_sym_void, 427), (mozjs_anon_sym_delete, 427),
     (mozjs_anon_sym_PLUS_PLUS, 431), (mozjs_anon_sym_DASH_DASH, 431),
     (mozjs_sym_comment, 5), (mozjs_anon_sym_BQUOTE, 434),
     (mozjs_sym_number, 437), (mozjs_sym_private_property_identifier, 439),
     (mozjs_sym_this, 441), (mozjs_sym_super, 441),
     (mozjs_sym_true, 441), (mozjs_sym_false, 441),
     (mozjs_sym_null, 441), (mozjs_sym_undefined, 443),
     (mozjs_anon_sym_AT, 93), (mozjs_anon_sym_static, 386),
     (mozjs_anon_sym_get, 386), (mozjs_anon_sym_set, 386),
     (mozjs_sym__ternary_qmark, 311), (mozjs_sym_html_comment, 5)]"

definition mozjs_parse_row_20 :: "(TSSymbol \<times> nat) list" where
  "mozjs_parse_row_20 =
    [(mozjs_sym_export_statement, 422), (mozjs_sym_declaration, 422),
     (mozjs_sym_import, 1333), (mozjs_sym_import_statement, 422),
     (mozjs_sym_statement, 7), (mozjs_sym_expression_statement, 422),
     (mozjs_sym_variable_declaration, 427), (mozjs_sym_lexical_declaration, 427),
     (mozjs_sym_using_declaration, 427), (mozjs_sym_statement_block, 422),
     (mozjs_sym_if_statement, 422), (mozjs_sym_switch_statement, 422),
     (mozjs_sym_for_statement, 422), (mozjs_sym_for_in_statement, 422),
     (mozjs_sym_while_statement, 422), (mozjs_sym_do_statement, 422),
     (mozjs_sym_try_statement, 422), (mozjs_sym_with_statement, 422),
     (mozjs_sym_break_statement, 422), (mozjs_sym_continue_statement, 422),
     (mozjs_sym_debugger_statement, 422), (mozjs_sym_return_statement, 422),
     (mozjs_sym_throw_statement, 422), (mozjs_sym_empty_statement, 422),
     (mozjs_sym_labeled_statement, 422), (mozjs_sym_parenthesized_expression, 556),
     (mozjs_sym_expression, 823), (mozjs_sym_primary_expression, 693),
     (mozjs_sym_yield_expression, 743), (mozjs_sym_object, 793),
     (mozjs_sym_object_pattern, 1845), (mozjs_sym_array, 793),
     (mozjs_sym_array_pattern, 1845), (mozjs_sym_jsx_element, 743),
     (mozjs_sym_jsx_opening_element, 1158), (mozjs_sym_jsx_self_closing_element, 743),
     (mozjs_sym_class, 793), (mozjs_sym_class_declaration, 427),
     (mozjs_sym_function_expression, 793), (mozjs_sym_function_declaration, 427),
     (mozjs_sym_generator_function, 793), (mozjs_sym_generator_function_declaration, 427),
     (mozjs_sym_arrow_function, 793), (mozjs_sym_call_expression, 793),
     (mozjs_sym_new_expression, 692), (mozjs_sym_await_expression, 743),
     (mozjs_sym_member_expression, 556), (mozjs_sym_subscript_expression, 556),
     (mozjs_sym_assignment_expression, 743), (mozjs_sym__augmented_assignment_lhs, 1146),
     (mozjs_sym_augmented_assignment_expression, 743), (mozjs_sym__destructuring_pattern, 1845),
     (mozjs_sym_ternary_expression, 743), (mozjs_sym_binary_expression, 743),
     (mozjs_sym_unary_expression, 743), (mozjs_sym_update_expression, 743),
     (mozjs_sym_sequence_expression, 1743), (mozjs_sym_string, 793),
     (mozjs_sym_template_string, 793), (mozjs_sym_regex, 793),
     (mozjs_sym_meta_property, 793), (mozjs_sym_decorator, 1112),
     (mozjs_sym_formal_parameters, 1847), (mozjs_aux_sym_program_repeat1, 7),
     (mozjs_aux_sym_export_statement_repeat1, 1278), (ts_builtin_sym_end, 376),
     (mozjs_sym_identifier, 9), (mozjs_anon_sym_export, 13),
     (mozjs_anon_sym_LBRACE, 15), (mozjs_anon_sym_import, 17),
     (mozjs_anon_sym_with, 19), (mozjs_anon_sym_var, 21),
     (mozjs_anon_sym_let, 23), (mozjs_anon_sym_const, 25),
     (mozjs_anon_sym_using, 27), (mozjs_anon_sym_await, 29),
     (mozjs_anon_sym_if, 31), (mozjs_anon_sym_switch, 33),
     (mozjs_anon_sym_for, 35), (mozjs_anon_sym_LPAREN, 37),
     (mozjs_anon_sym_SEMI, 39), (mozjs_anon_sym_while, 41),
     (mozjs_anon_sym_do, 43), (mozjs_anon_sym_try, 45),
     (mozjs_anon_sym_break, 47), (mozjs_anon_sym_continue, 49),
     (mozjs_anon_sym_debugger, 51), (mozjs_anon_sym_return, 53),
     (mozjs_anon_sym_throw, 55), (mozjs_anon_sym_yield, 57),
     (mozjs_anon_sym_LBRACK, 59), (mozjs_anon_sym_LT, 61),
     (mozjs_anon_sym_DQUOTE, 63), (mozjs_anon_sym_SQUOTE, 65),
     (mozjs_anon_sym_class, 67), (mozjs_anon_sym_async, 69),
     (mozjs_anon_sym_function, 71), (mozjs_anon_sym_new, 73),
     (mozjs_anon_sym_PLUS, 75), (mozjs_anon_sym_DASH, 75),
     (mozjs_anon_sym_SLASH, 77), (mozjs_anon_sym_BANG, 79),
     (mozjs_anon_sym_TILDE, 79), (mozjs_anon_sym_typeof, 75),
     (mozjs_anon_sym_void, 75), (mozjs_anon_sym_delete, 75),
     (mozjs_anon_sym_PLUS_PLUS, 81), (mozjs_anon_sym_DASH_DASH, 81),
     (mozjs_sym_comment, 5), (mozjs_anon_sym_BQUOTE, 83),
     (mozjs_sym_number, 85), (mozjs_sym_private_property_identifier, 87),
     (mozjs_sym_this, 89), (mozjs_sym_super, 89),
     (mozjs_sym_true, 89), (mozjs_sym_false, 89),
     (mozjs_sym_null, 89), (mozjs_sym_undefined, 91),
     (mozjs_anon_sym_AT, 93), (mozjs_anon_sym_static, 95),
     (mozjs_anon_sym_get, 95), (mozjs_anon_sym_set, 95),
     (mozjs_sym_preproc, 97), (mozjs_sym_html_comment, 5)]"

definition mozjs_parse_row_21 :: "(TSSymbol \<times> nat) list" where
  "mozjs_parse_row_21 =
    [(mozjs_sym_export_statement, 422), (mozjs_sym_declaration, 422),
     (mozjs_sym_import, 1333), (mozjs_sym_import_statement, 422),
     (mozjs_sym_statement, 7), (mozjs_sym_expression_statement, 422),
     (mozjs_sym_variable_declaration, 427), (mozjs_sym_lexical_declaration, 427),
     (mozjs_sym_using_declaration, 427), (mozjs_sym_statement_block, 422),
     (mozjs_sym_if_statement, 422), (mozjs_sym_switch_statement, 422),
     (mozjs_sym_for_statement, 422), (mozjs_sym_for_in_statement, 422),
     (mozjs_sym_while_statement, 422), (mozjs_sym_do_statement, 422),
     (mozjs_sym_try_statement, 422), (mozjs_sym_with_statement, 422),
     (mozjs_sym_break_statement, 422), (mozjs_sym_continue_statement, 422),
     (mozjs_sym_debugger_statement, 422), (mozjs_sym_return_statement, 422),
     (mozjs_sym_throw_statement, 422), (mozjs_sym_empty_statement, 422),
     (mozjs_sym_labeled_statement, 422), (mozjs_sym_parenthesized_expression, 556),
     (mozjs_sym_expression, 823), (mozjs_sym_primary_expression, 693),
     (mozjs_sym_yield_expression, 743), (mozjs_sym_object, 793),
     (mozjs_sym_object_pattern, 1845), (mozjs_sym_array, 793),
     (mozjs_sym_array_pattern, 1845), (mozjs_sym_jsx_element, 743),
     (mozjs_sym_jsx_opening_element, 1158), (mozjs_sym_jsx_self_closing_element, 743),
     (mozjs_sym_class, 793), (mozjs_sym_class_declaration, 427),
     (mozjs_sym_function_expression, 793), (mozjs_sym_function_declaration, 427),
     (mozjs_sym_generator_function, 793), (mozjs_sym_generator_function_declaration, 427),
     (mozjs_sym_arrow_function, 793), (mozjs_sym_call_expression, 793),
     (mozjs_sym_new_expression, 692), (mozjs_sym_await_expression, 743),
     (mozjs_sym_member_expression, 556), (mozjs_sym_subscript_expression, 556),
     (mozjs_sym_assignment_expression, 743), (mozjs_sym__augmented_assignment_lhs, 1146),
     (mozjs_sym_augmented_assignment_expression, 743), (mozjs_sym__destructuring_pattern, 1845),
     (mozjs_sym_ternary_expression, 743), (mozjs_sym_binary_expression, 743),
     (mozjs_sym_unary_expression, 743), (mozjs_sym_update_expression, 743),
     (mozjs_sym_sequence_expression, 1743), (mozjs_sym_string, 793),
     (mozjs_sym_template_string, 793), (mozjs_sym_regex, 793),
     (mozjs_sym_meta_property, 793), (mozjs_sym_decorator, 1112),
     (mozjs_sym_formal_parameters, 1847), (mozjs_aux_sym_program_repeat1, 7),
     (mozjs_aux_sym_export_statement_repeat1, 1278), (ts_builtin_sym_end, 445),
     (mozjs_sym_identifier, 9), (mozjs_anon_sym_export, 13),
     (mozjs_anon_sym_LBRACE, 15), (mozjs_anon_sym_import, 17),
     (mozjs_anon_sym_with, 19), (mozjs_anon_sym_var, 21),
     (mozjs_anon_sym_let, 23), (mozjs_anon_sym_const, 25),
     (mozjs_anon_sym_using, 27), (mozjs_anon_sym_await, 29),
     (mozjs_anon_sym_if, 31), (mozjs_anon_sym_switch, 33),
     (mozjs_anon_sym_for, 35), (mozjs_anon_sym_LPAREN, 37),
     (mozjs_anon_sym_SEMI, 39), (mozjs_anon_sym_while, 41),
     (mozjs_anon_sym_do, 43), (mozjs_anon_sym_try, 45),
     (mozjs_anon_sym_break, 47), (mozjs_anon_sym_continue, 49),
     (mozjs_anon_sym_debugger, 51), (mozjs_anon_sym_return, 53),
     (mozjs_anon_sym_throw, 55), (mozjs_anon_sym_yield, 57),
     (mozjs_anon_sym_LBRACK, 59), (mozjs_anon_sym_LT, 61),
     (mozjs_anon_sym_DQUOTE, 63), (mozjs_anon_sym_SQUOTE, 65),
     (mozjs_anon_sym_class, 67), (mozjs_anon_sym_async, 69),
     (mozjs_anon_sym_function, 71), (mozjs_anon_sym_new, 73),
     (mozjs_anon_sym_PLUS, 75), (mozjs_anon_sym_DASH, 75),
     (mozjs_anon_sym_SLASH, 77), (mozjs_anon_sym_BANG, 79),
     (mozjs_anon_sym_TILDE, 79), (mozjs_anon_sym_typeof, 75),
     (mozjs_anon_sym_void, 75), (mozjs_anon_sym_delete, 75),
     (mozjs_anon_sym_PLUS_PLUS, 81), (mozjs_anon_sym_DASH_DASH, 81),
     (mozjs_sym_comment, 5), (mozjs_anon_sym_BQUOTE, 83),
     (mozjs_sym_number, 85), (mozjs_sym_private_property_identifier, 87),
     (mozjs_sym_this, 89), (mozjs_sym_super, 89),
     (mozjs_sym_true, 89), (mozjs_sym_false, 89),
     (mozjs_sym_null, 89), (mozjs_sym_undefined, 91),
     (mozjs_anon_sym_AT, 93), (mozjs_anon_sym_static, 95),
     (mozjs_anon_sym_get, 95), (mozjs_anon_sym_set, 95),
     (mozjs_sym_preproc, 97), (mozjs_sym_html_comment, 5)]"

definition mozjs_parse_row_22 :: "(TSSymbol \<times> nat) list" where
  "mozjs_parse_row_22 =
    [(mozjs_sym_export_statement, 422), (mozjs_sym_declaration, 422),
     (mozjs_sym_import, 1333), (mozjs_sym_import_statement, 422),
     (mozjs_sym_statement, 7), (mozjs_sym_expression_statement, 422),
     (mozjs_sym_variable_declaration, 427), (mozjs_sym_lexical_declaration, 427),
     (mozjs_sym_using_declaration, 427), (mozjs_sym_statement_block, 422),
     (mozjs_sym_if_statement, 422), (mozjs_sym_switch_statement, 422),
     (mozjs_sym_for_statement, 422), (mozjs_sym_for_in_statement, 422),
     (mozjs_sym_while_statement, 422), (mozjs_sym_do_statement, 422),
     (mozjs_sym_try_statement, 422), (mozjs_sym_with_statement, 422),
     (mozjs_sym_break_statement, 422), (mozjs_sym_continue_statement, 422),
     (mozjs_sym_debugger_statement, 422), (mozjs_sym_return_statement, 422),
     (mozjs_sym_throw_statement, 422), (mozjs_sym_empty_statement, 422),
     (mozjs_sym_labeled_statement, 422), (mozjs_sym_parenthesized_expression, 556),
     (mozjs_sym_expression, 823), (mozjs_sym_primary_expression, 693),
     (mozjs_sym_yield_expression, 743), (mozjs_sym_object, 793),
     (mozjs_sym_object_pattern, 1845), (mozjs_sym_array, 793),
     (mozjs_sym_array_pattern, 1845), (mozjs_sym_jsx_element, 743),
     (mozjs_sym_jsx_opening_element, 1158), (mozjs_sym_jsx_self_closing_element, 743),
     (mozjs_sym_class, 793), (mozjs_sym_class_declaration, 427),
     (mozjs_sym_function_expression, 793), (mozjs_sym_function_declaration, 427),
     (mozjs_sym_generator_function, 793), (mozjs_sym_generator_function_declaration, 427),
     (mozjs_sym_arrow_function, 793), (mozjs_sym_call_expression, 793),
     (mozjs_sym_new_expression, 692), (mozjs_sym_await_expression, 743),
     (mozjs_sym_member_expression, 556), (mozjs_sym_subscript_expression, 556),
     (mozjs_sym_assignment_expression, 743), (mozjs_sym__augmented_assignment_lhs, 1146),
     (mozjs_sym_augmented_assignment_expression, 743), (mozjs_sym__destructuring_pattern, 1845),
     (mozjs_sym_ternary_expression, 743), (mozjs_sym_binary_expression, 743),
     (mozjs_sym_unary_expression, 743), (mozjs_sym_update_expression, 743),
     (mozjs_sym_sequence_expression, 1743), (mozjs_sym_string, 793),
     (mozjs_sym_template_string, 793), (mozjs_sym_regex, 793),
     (mozjs_sym_meta_property, 793), (mozjs_sym_decorator, 1112),
     (mozjs_sym_formal_parameters, 1847), (mozjs_aux_sym_program_repeat1, 7),
     (mozjs_aux_sym_export_statement_repeat1, 1278), (mozjs_sym_identifier, 9),
     (mozjs_anon_sym_export, 13), (mozjs_anon_sym_LBRACE, 15),
     (mozjs_anon_sym_RBRACE, 447), (mozjs_anon_sym_import, 17),
     (mozjs_anon_sym_with, 19), (mozjs_anon_sym_var, 21),
     (mozjs_anon_sym_let, 23), (mozjs_anon_sym_const, 25),
     (mozjs_anon_sym_using, 27), (mozjs_anon_sym_await, 29),
     (mozjs_anon_sym_if, 31), (mozjs_anon_sym_switch, 33),
     (mozjs_anon_sym_for, 35), (mozjs_anon_sym_LPAREN, 37),
     (mozjs_anon_sym_SEMI, 39), (mozjs_anon_sym_while, 41),
     (mozjs_anon_sym_do, 43), (mozjs_anon_sym_try, 45),
     (mozjs_anon_sym_break, 47), (mozjs_anon_sym_continue, 49),
     (mozjs_anon_sym_debugger, 51), (mozjs_anon_sym_return, 53),
     (mozjs_anon_sym_throw, 55), (mozjs_anon_sym_yield, 57),
     (mozjs_anon_sym_LBRACK, 59), (mozjs_anon_sym_LT, 61),
     (mozjs_anon_sym_DQUOTE, 63), (mozjs_anon_sym_SQUOTE, 65),
     (mozjs_anon_sym_class, 67), (mozjs_anon_sym_async, 69),
     (mozjs_anon_sym_function, 71), (mozjs_anon_sym_new, 73),
     (mozjs_anon_sym_PLUS, 75), (mozjs_anon_sym_DASH, 75),
     (mozjs_anon_sym_SLASH, 77), (mozjs_anon_sym_BANG, 79),
     (mozjs_anon_sym_TILDE, 79), (mozjs_anon_sym_typeof, 75),
     (mozjs_anon_sym_void, 75), (mozjs_anon_sym_delete, 75),
     (mozjs_anon_sym_PLUS_PLUS, 81), (mozjs_anon_sym_DASH_DASH, 81),
     (mozjs_sym_comment, 5), (mozjs_anon_sym_BQUOTE, 83),
     (mozjs_sym_number, 85), (mozjs_sym_private_property_identifier, 87),
     (mozjs_sym_this, 89), (mozjs_sym_super, 89),
     (mozjs_sym_true, 89), (mozjs_sym_false, 89),
     (mozjs_sym_null, 89), (mozjs_sym_undefined, 91),
     (mozjs_anon_sym_AT, 93), (mozjs_anon_sym_static, 95),
     (mozjs_anon_sym_get, 95), (mozjs_anon_sym_set, 95),
     (mozjs_sym_preproc, 97), (mozjs_sym_html_comment, 5)]"

definition mozjs_parse_row_23 :: "(TSSymbol \<times> nat) list" where
  "mozjs_parse_row_23 =
    [(mozjs_sym_export_statement, 422), (mozjs_sym_declaration, 422),
     (mozjs_sym_import, 1333), (mozjs_sym_import_statement, 422),
     (mozjs_sym_statement, 22), (mozjs_sym_expression_statement, 422),
     (mozjs_sym_variable_declaration, 427), (mozjs_sym_lexical_declaration, 427),
     (mozjs_sym_using_declaration, 427), (mozjs_sym_statement_block, 422),
     (mozjs_sym_if_statement, 422), (mozjs_sym_switch_statement, 422),
     (mozjs_sym_for_statement, 422), (mozjs_sym_for_in_statement, 422),
     (mozjs_sym_while_statement, 422), (mozjs_sym_do_statement, 422),
     (mozjs_sym_try_statement, 422), (mozjs_sym_with_statement, 422),
     (mozjs_sym_break_statement, 422), (mozjs_sym_continue_statement, 422),
     (mozjs_sym_debugger_statement, 422), (mozjs_sym_return_statement, 422),
     (mozjs_sym_throw_statement, 422), (mozjs_sym_empty_statement, 422),
     (mozjs_sym_labeled_statement, 422), (mozjs_sym_parenthesized_expression, 556),
     (mozjs_sym_expression, 823), (mozjs_sym_primary_expression, 693),
     (mozjs_sym_yield_expression, 743), (mozjs_sym_object, 793),
     (mozjs_sym_object_pattern, 1845), (mozjs_sym_array, 793),
     (mozjs_sym_array_pattern, 1845), (mozjs_sym_jsx_element, 743),
     (mozjs_sym_jsx_opening_element, 1158), (mozjs_sym_jsx_self_closing_element, 743),
     (mozjs_sym_class, 793), (mozjs_sym_class_declaration, 427),
     (mozjs_sym_function_expression, 793), (mozjs_sym_function_declaration, 427),
     (mozjs_sym_generator_function, 793), (mozjs_sym_generator_function_declaration, 427),
     (mozjs_sym_arrow_function, 793), (mozjs_sym_call_expression, 793),
     (mozjs_sym_new_expression, 692), (mozjs_sym_await_expression, 743),
     (mozjs_sym_member_expression, 556), (mozjs_sym_subscript_expression, 556),
     (mozjs_sym_assignment_expression, 743), (mozjs_sym__augmented_assignment_lhs, 1146),
     (mozjs_sym_augmented_assignment_expression, 743), (mozjs_sym__destructuring_pattern, 1845),
     (mozjs_sym_ternary_expression, 743), (mozjs_sym_binary_expression, 743),
     (mozjs_sym_unary_expression, 743), (mozjs_sym_update_expression, 743),
     (mozjs_sym_sequence_expression, 1743), (mozjs_sym_string, 793),
     (mozjs_sym_template_string, 793), (mozjs_sym_regex, 793),
     (mozjs_sym_meta_property, 793), (mozjs_sym_decorator, 1112),
     (mozjs_sym_formal_parameters, 1847), (mozjs_aux_sym_program_repeat1, 22),
     (mozjs_aux_sym_export_statement_repeat1, 1278), (mozjs_sym_identifier, 9),
     (mozjs_anon_sym_export, 13), (mozjs_anon_sym_LBRACE, 15),
     (mozjs_anon_sym_RBRACE, 449), (mozjs_anon_sym_import, 17),
     (mozjs_anon_sym_with, 19), (mozjs_anon_sym_var, 21),
     (mozjs_anon_sym_let, 23), (mozjs_anon_sym_const, 25),
     (mozjs_anon_sym_using, 27), (mozjs_anon_sym_await, 29),
     (mozjs_anon_sym_if, 31), (mozjs_anon_sym_switch, 33),
     (mozjs_anon_sym_for, 35), (mozjs_anon_sym_LPAREN, 37),
     (mozjs_anon_sym_SEMI, 39), (mozjs_anon_sym_while, 41),
     (mozjs_anon_sym_do, 43), (mozjs_anon_sym_try, 45),
     (mozjs_anon_sym_break, 47), (mozjs_anon_sym_continue, 49),
     (mozjs_anon_sym_debugger, 51), (mozjs_anon_sym_return, 53),
     (mozjs_anon_sym_throw, 55), (mozjs_anon_sym_yield, 57),
     (mozjs_anon_sym_LBRACK, 59), (mozjs_anon_sym_LT, 61),
     (mozjs_anon_sym_DQUOTE, 63), (mozjs_anon_sym_SQUOTE, 65),
     (mozjs_anon_sym_class, 67), (mozjs_anon_sym_async, 69),
     (mozjs_anon_sym_function, 71), (mozjs_anon_sym_new, 73),
     (mozjs_anon_sym_PLUS, 75), (mozjs_anon_sym_DASH, 75),
     (mozjs_anon_sym_SLASH, 77), (mozjs_anon_sym_BANG, 79),
     (mozjs_anon_sym_TILDE, 79), (mozjs_anon_sym_typeof, 75),
     (mozjs_anon_sym_void, 75), (mozjs_anon_sym_delete, 75),
     (mozjs_anon_sym_PLUS_PLUS, 81), (mozjs_anon_sym_DASH_DASH, 81),
     (mozjs_sym_comment, 5), (mozjs_anon_sym_BQUOTE, 83),
     (mozjs_sym_number, 85), (mozjs_sym_private_property_identifier, 87),
     (mozjs_sym_this, 89), (mozjs_sym_super, 89),
     (mozjs_sym_true, 89), (mozjs_sym_false, 89),
     (mozjs_sym_null, 89), (mozjs_sym_undefined, 91),
     (mozjs_anon_sym_AT, 93), (mozjs_anon_sym_static, 95),
     (mozjs_anon_sym_get, 95), (mozjs_anon_sym_set, 95),
     (mozjs_sym_preproc, 97), (mozjs_sym_html_comment, 5)]"

definition mozjs_parse_row_24 :: "(TSSymbol \<times> nat) list" where
  "mozjs_parse_row_24 =
    [(mozjs_sym_export_statement, 422), (mozjs_sym_declaration, 422),
     (mozjs_sym_import, 1333), (mozjs_sym_import_statement, 422),
     (mozjs_sym_statement, 7), (mozjs_sym_expression_statement, 422),
     (mozjs_sym_variable_declaration, 427), (mozjs_sym_lexical_declaration, 427),
     (mozjs_sym_using_declaration, 427), (mozjs_sym_statement_block, 422),
     (mozjs_sym_if_statement, 422), (mozjs_sym_switch_statement, 422),
     (mozjs_sym_for_statement, 422), (mozjs_sym_for_in_statement, 422),
     (mozjs_sym_while_statement, 422), (mozjs_sym_do_statement, 422),
     (mozjs_sym_try_statement, 422), (mozjs_sym_with_statement, 422),
     (mozjs_sym_break_statement, 422), (mozjs_sym_continue_statement, 422),
     (mozjs_sym_debugger_statement, 422), (mozjs_sym_return_statement, 422),
     (mozjs_sym_throw_statement, 422), (mozjs_sym_empty_statement, 422),
     (mozjs_sym_labeled_statement, 422), (mozjs_sym_parenthesized_expression, 556),
     (mozjs_sym_expression, 823), (mozjs_sym_primary_expression, 693),
     (mozjs_sym_yield_expression, 743), (mozjs_sym_object, 793),
     (mozjs_sym_object_pattern, 1845), (mozjs_sym_array, 793),
     (mozjs_sym_array_pattern, 1845), (mozjs_sym_jsx_element, 743),
     (mozjs_sym_jsx_opening_element, 1158), (mozjs_sym_jsx_self_closing_element, 743),
     (mozjs_sym_class, 793), (mozjs_sym_class_declaration, 427),
     (mozjs_sym_function_expression, 793), (mozjs_sym_function_declaration, 427),
     (mozjs_sym_generator_function, 793), (mozjs_sym_generator_function_declaration, 427),
     (mozjs_sym_arrow_function, 793), (mozjs_sym_call_expression, 793),
     (mozjs_sym_new_expression, 692), (mozjs_sym_await_expression, 743),
     (mozjs_sym_member_expression, 556), (mozjs_sym_subscript_expression, 556),
     (mozjs_sym_assignment_expression, 743), (mozjs_sym__augmented_assignment_lhs, 1146),
     (mozjs_sym_augmented_assignment_expression, 743), (mozjs_sym__destructuring_pattern, 1845),
     (mozjs_sym_ternary_expression, 743), (mozjs_sym_binary_expression, 743),
     (mozjs_sym_unary_expression, 743), (mozjs_sym_update_expression, 743),
     (mozjs_sym_sequence_expression, 1743), (mozjs_sym_string, 793),
     (mozjs_sym_template_string, 793), (mozjs_sym_regex, 793),
     (mozjs_sym_meta_property, 793), (mozjs_sym_decorator, 1112),
     (mozjs_sym_formal_parameters, 1847), (mozjs_aux_sym_program_repeat1, 7),
     (mozjs_aux_sym_export_statement_repeat1, 1278), (mozjs_sym_identifier, 9),
     (mozjs_anon_sym_export, 13), (mozjs_anon_sym_LBRACE, 15),
     (mozjs_anon_sym_RBRACE, 451), (mozjs_anon_sym_import, 17),
     (mozjs_anon_sym_with, 19), (mozjs_anon_sym_var, 21),
     (mozjs_anon_sym_let, 23), (mozjs_anon_sym_const, 25),
     (mozjs_anon_sym_using, 27), (mozjs_anon_sym_await, 29),
     (mozjs_anon_sym_if, 31), (mozjs_anon_sym_switch, 33),
     (mozjs_anon_sym_for, 35), (mozjs_anon_sym_LPAREN, 37),
     (mozjs_anon_sym_SEMI, 39), (mozjs_anon_sym_while, 41),
     (mozjs_anon_sym_do, 43), (mozjs_anon_sym_try, 45),
     (mozjs_anon_sym_break, 47), (mozjs_anon_sym_continue, 49),
     (mozjs_anon_sym_debugger, 51), (mozjs_anon_sym_return, 53),
     (mozjs_anon_sym_throw, 55), (mozjs_anon_sym_yield, 57),
     (mozjs_anon_sym_LBRACK, 59), (mozjs_anon_sym_LT, 61),
     (mozjs_anon_sym_DQUOTE, 63), (mozjs_anon_sym_SQUOTE, 65),
     (mozjs_anon_sym_class, 67), (mozjs_anon_sym_async, 69),
     (mozjs_anon_sym_function, 71), (mozjs_anon_sym_new, 73),
     (mozjs_anon_sym_PLUS, 75), (mozjs_anon_sym_DASH, 75),
     (mozjs_anon_sym_SLASH, 77), (mozjs_anon_sym_BANG, 79),
     (mozjs_anon_sym_TILDE, 79), (mozjs_anon_sym_typeof, 75),
     (mozjs_anon_sym_void, 75), (mozjs_anon_sym_delete, 75),
     (mozjs_anon_sym_PLUS_PLUS, 81), (mozjs_anon_sym_DASH_DASH, 81),
     (mozjs_sym_comment, 5), (mozjs_anon_sym_BQUOTE, 83),
     (mozjs_sym_number, 85), (mozjs_sym_private_property_identifier, 87),
     (mozjs_sym_this, 89), (mozjs_sym_super, 89),
     (mozjs_sym_true, 89), (mozjs_sym_false, 89),
     (mozjs_sym_null, 89), (mozjs_sym_undefined, 91),
     (mozjs_anon_sym_AT, 93), (mozjs_anon_sym_static, 95),
     (mozjs_anon_sym_get, 95), (mozjs_anon_sym_set, 95),
     (mozjs_sym_preproc, 97), (mozjs_sym_html_comment, 5)]"

definition mozjs_parse_row_25 :: "(TSSymbol \<times> nat) list" where
  "mozjs_parse_row_25 =
    [(mozjs_sym_export_statement, 422), (mozjs_sym_declaration, 422),
     (mozjs_sym_import, 1333), (mozjs_sym_import_statement, 422),
     (mozjs_sym_statement, 24), (mozjs_sym_expression_statement, 422),
     (mozjs_sym_variable_declaration, 427), (mozjs_sym_lexical_declaration, 427),
     (mozjs_sym_using_declaration, 427), (mozjs_sym_statement_block, 422),
     (mozjs_sym_if_statement, 422), (mozjs_sym_switch_statement, 422),
     (mozjs_sym_for_statement, 422), (mozjs_sym_for_in_statement, 422),
     (mozjs_sym_while_statement, 422), (mozjs_sym_do_statement, 422),
     (mozjs_sym_try_statement, 422), (mozjs_sym_with_statement, 422),
     (mozjs_sym_break_statement, 422), (mozjs_sym_continue_statement, 422),
     (mozjs_sym_debugger_statement, 422), (mozjs_sym_return_statement, 422),
     (mozjs_sym_throw_statement, 422), (mozjs_sym_empty_statement, 422),
     (mozjs_sym_labeled_statement, 422), (mozjs_sym_parenthesized_expression, 556),
     (mozjs_sym_expression, 823), (mozjs_sym_primary_expression, 693),
     (mozjs_sym_yield_expression, 743), (mozjs_sym_object, 793),
     (mozjs_sym_object_pattern, 1845), (mozjs_sym_array, 793),
     (mozjs_sym_array_pattern, 1845), (mozjs_sym_jsx_element, 743),
     (mozjs_sym_jsx_opening_element, 1158), (mozjs_sym_jsx_self_closing_element, 743),
     (mozjs_sym_class, 793), (mozjs_sym_class_declaration, 427),
     (mozjs_sym_function_expression, 793), (mozjs_sym_function_declaration, 427),
     (mozjs_sym_generator_function, 793), (mozjs_sym_generator_function_declaration, 427),
     (mozjs_sym_arrow_function, 793), (mozjs_sym_call_expression, 793),
     (mozjs_sym_new_expression, 692), (mozjs_sym_await_expression, 743),
     (mozjs_sym_member_expression, 556), (mozjs_sym_subscript_expression, 556),
     (mozjs_sym_assignment_expression, 743), (mozjs_sym__augmented_assignment_lhs, 1146),
     (mozjs_sym_augmented_assignment_expression, 743), (mozjs_sym__destructuring_pattern, 1845),
     (mozjs_sym_ternary_expression, 743), (mozjs_sym_binary_expression, 743),
     (mozjs_sym_unary_expression, 743), (mozjs_sym_update_expression, 743),
     (mozjs_sym_sequence_expression, 1743), (mozjs_sym_string, 793),
     (mozjs_sym_template_string, 793), (mozjs_sym_regex, 793),
     (mozjs_sym_meta_property, 793), (mozjs_sym_decorator, 1112),
     (mozjs_sym_formal_parameters, 1847), (mozjs_aux_sym_program_repeat1, 24),
     (mozjs_aux_sym_export_statement_repeat1, 1278), (mozjs_sym_identifier, 9),
     (mozjs_anon_sym_export, 13), (mozjs_anon_sym_LBRACE, 15),
     (mozjs_anon_sym_RBRACE, 453), (mozjs_anon_sym_import, 17),
     (mozjs_anon_sym_with, 19), (mozjs_anon_sym_var, 21),
     (mozjs_anon_sym_let, 23), (mozjs_anon_sym_const, 25),
     (mozjs_anon_sym_using, 27), (mozjs_anon_sym_await, 29),
     (mozjs_anon_sym_if, 31), (mozjs_anon_sym_switch, 33),
     (mozjs_anon_sym_for, 35), (mozjs_anon_sym_LPAREN, 37),
     (mozjs_anon_sym_SEMI, 39), (mozjs_anon_sym_while, 41),
     (mozjs_anon_sym_do, 43), (mozjs_anon_sym_try, 45),
     (mozjs_anon_sym_break, 47), (mozjs_anon_sym_continue, 49),
     (mozjs_anon_sym_debugger, 51), (mozjs_anon_sym_return, 53),
     (mozjs_anon_sym_throw, 55), (mozjs_anon_sym_yield, 57),
     (mozjs_anon_sym_LBRACK, 59), (mozjs_anon_sym_LT, 61),
     (mozjs_anon_sym_DQUOTE, 63), (mozjs_anon_sym_SQUOTE, 65),
     (mozjs_anon_sym_class, 67), (mozjs_anon_sym_async, 69),
     (mozjs_anon_sym_function, 71), (mozjs_anon_sym_new, 73),
     (mozjs_anon_sym_PLUS, 75), (mozjs_anon_sym_DASH, 75),
     (mozjs_anon_sym_SLASH, 77), (mozjs_anon_sym_BANG, 79),
     (mozjs_anon_sym_TILDE, 79), (mozjs_anon_sym_typeof, 75),
     (mozjs_anon_sym_void, 75), (mozjs_anon_sym_delete, 75),
     (mozjs_anon_sym_PLUS_PLUS, 81), (mozjs_anon_sym_DASH_DASH, 81),
     (mozjs_sym_comment, 5), (mozjs_anon_sym_BQUOTE, 83),
     (mozjs_sym_number, 85), (mozjs_sym_private_property_identifier, 87),
     (mozjs_sym_this, 89), (mozjs_sym_super, 89),
     (mozjs_sym_true, 89), (mozjs_sym_false, 89),
     (mozjs_sym_null, 89), (mozjs_sym_undefined, 91),
     (mozjs_anon_sym_AT, 93), (mozjs_anon_sym_static, 95),
     (mozjs_anon_sym_get, 95), (mozjs_anon_sym_set, 95),
     (mozjs_sym_preproc, 97), (mozjs_sym_html_comment, 5)]"

definition mozjs_parse_row_26 :: "(TSSymbol \<times> nat) list" where
  "mozjs_parse_row_26 =
    [(mozjs_sym_export_statement, 422), (mozjs_sym_declaration, 422),
     (mozjs_sym_import, 1333), (mozjs_sym_import_statement, 422),
     (mozjs_sym_statement, 7), (mozjs_sym_expression_statement, 422),
     (mozjs_sym_variable_declaration, 427), (mozjs_sym_lexical_declaration, 427),
     (mozjs_sym_using_declaration, 427), (mozjs_sym_statement_block, 422),
     (mozjs_sym_if_statement, 422), (mozjs_sym_switch_statement, 422),
     (mozjs_sym_for_statement, 422), (mozjs_sym_for_in_statement, 422),
     (mozjs_sym_while_statement, 422), (mozjs_sym_do_statement, 422),
     (mozjs_sym_try_statement, 422), (mozjs_sym_with_statement, 422),
     (mozjs_sym_break_statement, 422), (mozjs_sym_continue_statement, 422),
     (mozjs_sym_debugger_statement, 422), (mozjs_sym_return_statement, 422),
     (mozjs_sym_throw_statement, 422), (mozjs_sym_empty_statement, 422),
     (mozjs_sym_labeled_statement, 422), (mozjs_sym_parenthesized_expression, 556),
     (mozjs_sym_expression, 823), (mozjs_sym_primary_expression, 693),
     (mozjs_sym_yield_expression, 743), (mozjs_sym_object, 793),
     (mozjs_sym_object_pattern, 1845), (mozjs_sym_array, 793),
     (mozjs_sym_array_pattern, 1845), (mozjs_sym_jsx_element, 743),
     (mozjs_sym_jsx_opening_element, 1158), (mozjs_sym_jsx_self_closing_element, 743),
     (mozjs_sym_class, 793), (mozjs_sym_class_declaration, 427),
     (mozjs_sym_function_expression, 793), (mozjs_sym_function_declaration, 427),
     (mozjs_sym_generator_function, 793), (mozjs_sym_generator_function_declaration, 427),
     (mozjs_sym_arrow_function, 793), (mozjs_sym_call_expression, 793),
     (mozjs_sym_new_expression, 692), (mozjs_sym_await_expression, 743),
     (mozjs_sym_member_expression, 556), (mozjs_sym_subscript_expression, 556),
     (mozjs_sym_assignment_expression, 743), (mozjs_sym__augmented_assignment_lhs, 1146),
     (mozjs_sym_augmented_assignment_expression, 743), (mozjs_sym__destructuring_pattern, 1845),
     (mozjs_sym_ternary_expression, 743), (mozjs_sym_binary_expression, 743),
     (mozjs_sym_unary_expression, 743), (mozjs_sym_update_expression, 743),
     (mozjs_sym_sequence_expression, 1743), (mozjs_sym_string, 793),
     (mozjs_sym_template_string, 793), (mozjs_sym_regex, 793),
     (mozjs_sym_meta_property, 793), (mozjs_sym_decorator, 1112),
     (mozjs_sym_formal_parameters, 1847), (mozjs_aux_sym_program_repeat1, 7),
     (mozjs_aux_sym_export_statement_repeat1, 1278), (mozjs_sym_identifier, 9),
     (mozjs_anon_sym_export, 13), (mozjs_anon_sym_LBRACE, 15),
     (mozjs_anon_sym_RBRACE, 455), (mozjs_anon_sym_import, 17),
     (mozjs_anon_sym_with, 19), (mozjs_anon_sym_var, 21),
     (mozjs_anon_sym_let, 23), (mozjs_anon_sym_const, 25),
     (mozjs_anon_sym_using, 27), (mozjs_anon_sym_await, 29),
     (mozjs_anon_sym_if, 31), (mozjs_anon_sym_switch, 33),
     (mozjs_anon_sym_for, 35), (mozjs_anon_sym_LPAREN, 37),
     (mozjs_anon_sym_SEMI, 39), (mozjs_anon_sym_while, 41),
     (mozjs_anon_sym_do, 43), (mozjs_anon_sym_try, 45),
     (mozjs_anon_sym_break, 47), (mozjs_anon_sym_continue, 49),
     (mozjs_anon_sym_debugger, 51), (mozjs_anon_sym_return, 53),
     (mozjs_anon_sym_throw, 55), (mozjs_anon_sym_yield, 57),
     (mozjs_anon_sym_LBRACK, 59), (mozjs_anon_sym_LT, 61),
     (mozjs_anon_sym_DQUOTE, 63), (mozjs_anon_sym_SQUOTE, 65),
     (mozjs_anon_sym_class, 67), (mozjs_anon_sym_async, 69),
     (mozjs_anon_sym_function, 71), (mozjs_anon_sym_new, 73),
     (mozjs_anon_sym_PLUS, 75), (mozjs_anon_sym_DASH, 75),
     (mozjs_anon_sym_SLASH, 77), (mozjs_anon_sym_BANG, 79),
     (mozjs_anon_sym_TILDE, 79), (mozjs_anon_sym_typeof, 75),
     (mozjs_anon_sym_void, 75), (mozjs_anon_sym_delete, 75),
     (mozjs_anon_sym_PLUS_PLUS, 81), (mozjs_anon_sym_DASH_DASH, 81),
     (mozjs_sym_comment, 5), (mozjs_anon_sym_BQUOTE, 83),
     (mozjs_sym_number, 85), (mozjs_sym_private_property_identifier, 87),
     (mozjs_sym_this, 89), (mozjs_sym_super, 89),
     (mozjs_sym_true, 89), (mozjs_sym_false, 89),
     (mozjs_sym_null, 89), (mozjs_sym_undefined, 91),
     (mozjs_anon_sym_AT, 93), (mozjs_anon_sym_static, 95),
     (mozjs_anon_sym_get, 95), (mozjs_anon_sym_set, 95),
     (mozjs_sym_preproc, 97), (mozjs_sym_html_comment, 5)]"

definition mozjs_parse_row_27 :: "(TSSymbol \<times> nat) list" where
  "mozjs_parse_row_27 =
    [(mozjs_sym_export_statement, 422), (mozjs_sym_declaration, 422),
     (mozjs_sym_import, 1333), (mozjs_sym_import_statement, 422),
     (mozjs_sym_statement, 26), (mozjs_sym_expression_statement, 422),
     (mozjs_sym_variable_declaration, 427), (mozjs_sym_lexical_declaration, 427),
     (mozjs_sym_using_declaration, 427), (mozjs_sym_statement_block, 422),
     (mozjs_sym_if_statement, 422), (mozjs_sym_switch_statement, 422),
     (mozjs_sym_for_statement, 422), (mozjs_sym_for_in_statement, 422),
     (mozjs_sym_while_statement, 422), (mozjs_sym_do_statement, 422),
     (mozjs_sym_try_statement, 422), (mozjs_sym_with_statement, 422),
     (mozjs_sym_break_statement, 422), (mozjs_sym_continue_statement, 422),
     (mozjs_sym_debugger_statement, 422), (mozjs_sym_return_statement, 422),
     (mozjs_sym_throw_statement, 422), (mozjs_sym_empty_statement, 422),
     (mozjs_sym_labeled_statement, 422), (mozjs_sym_parenthesized_expression, 556),
     (mozjs_sym_expression, 823), (mozjs_sym_primary_expression, 693),
     (mozjs_sym_yield_expression, 743), (mozjs_sym_object, 793),
     (mozjs_sym_object_pattern, 1845), (mozjs_sym_array, 793),
     (mozjs_sym_array_pattern, 1845), (mozjs_sym_jsx_element, 743),
     (mozjs_sym_jsx_opening_element, 1158), (mozjs_sym_jsx_self_closing_element, 743),
     (mozjs_sym_class, 793), (mozjs_sym_class_declaration, 427),
     (mozjs_sym_function_expression, 793), (mozjs_sym_function_declaration, 427),
     (mozjs_sym_generator_function, 793), (mozjs_sym_generator_function_declaration, 427),
     (mozjs_sym_arrow_function, 793), (mozjs_sym_call_expression, 793),
     (mozjs_sym_new_expression, 692), (mozjs_sym_await_expression, 743),
     (mozjs_sym_member_expression, 556), (mozjs_sym_subscript_expression, 556),
     (mozjs_sym_assignment_expression, 743), (mozjs_sym__augmented_assignment_lhs, 1146),
     (mozjs_sym_augmented_assignment_expression, 743), (mozjs_sym__destructuring_pattern, 1845),
     (mozjs_sym_ternary_expression, 743), (mozjs_sym_binary_expression, 743),
     (mozjs_sym_unary_expression, 743), (mozjs_sym_update_expression, 743),
     (mozjs_sym_sequence_expression, 1743), (mozjs_sym_string, 793),
     (mozjs_sym_template_string, 793), (mozjs_sym_regex, 793),
     (mozjs_sym_meta_property, 793), (mozjs_sym_decorator, 1112),
     (mozjs_sym_formal_parameters, 1847), (mozjs_aux_sym_program_repeat1, 26),
     (mozjs_aux_sym_export_statement_repeat1, 1278), (mozjs_sym_identifier, 9),
     (mozjs_anon_sym_export, 13), (mozjs_anon_sym_LBRACE, 15),
     (mozjs_anon_sym_RBRACE, 457), (mozjs_anon_sym_import, 17),
     (mozjs_anon_sym_with, 19), (mozjs_anon_sym_var, 21),
     (mozjs_anon_sym_let, 23), (mozjs_anon_sym_const, 25),
     (mozjs_anon_sym_using, 27), (mozjs_anon_sym_await, 29),
     (mozjs_anon_sym_if, 31), (mozjs_anon_sym_switch, 33),
     (mozjs_anon_sym_for, 35), (mozjs_anon_sym_LPAREN, 37),
     (mozjs_anon_sym_SEMI, 39), (mozjs_anon_sym_while, 41),
     (mozjs_anon_sym_do, 43), (mozjs_anon_sym_try, 45),
     (mozjs_anon_sym_break, 47), (mozjs_anon_sym_continue, 49),
     (mozjs_anon_sym_debugger, 51), (mozjs_anon_sym_return, 53),
     (mozjs_anon_sym_throw, 55), (mozjs_anon_sym_yield, 57),
     (mozjs_anon_sym_LBRACK, 59), (mozjs_anon_sym_LT, 61),
     (mozjs_anon_sym_DQUOTE, 63), (mozjs_anon_sym_SQUOTE, 65),
     (mozjs_anon_sym_class, 67), (mozjs_anon_sym_async, 69),
     (mozjs_anon_sym_function, 71), (mozjs_anon_sym_new, 73),
     (mozjs_anon_sym_PLUS, 75), (mozjs_anon_sym_DASH, 75),
     (mozjs_anon_sym_SLASH, 77), (mozjs_anon_sym_BANG, 79),
     (mozjs_anon_sym_TILDE, 79), (mozjs_anon_sym_typeof, 75),
     (mozjs_anon_sym_void, 75), (mozjs_anon_sym_delete, 75),
     (mozjs_anon_sym_PLUS_PLUS, 81), (mozjs_anon_sym_DASH_DASH, 81),
     (mozjs_sym_comment, 5), (mozjs_anon_sym_BQUOTE, 83),
     (mozjs_sym_number, 85), (mozjs_sym_private_property_identifier, 87),
     (mozjs_sym_this, 89), (mozjs_sym_super, 89),
     (mozjs_sym_true, 89), (mozjs_sym_false, 89),
     (mozjs_sym_null, 89), (mozjs_sym_undefined, 91),
     (mozjs_anon_sym_AT, 93), (mozjs_anon_sym_static, 95),
     (mozjs_anon_sym_get, 95), (mozjs_anon_sym_set, 95),
     (mozjs_sym_preproc, 97), (mozjs_sym_html_comment, 5)]"

definition mozjs_parse_row_28 :: "(TSSymbol \<times> nat) list" where
  "mozjs_parse_row_28 =
    [(mozjs_sym_export_statement, 422), (mozjs_sym_declaration, 422),
     (mozjs_sym_import, 1333), (mozjs_sym_import_statement, 422),
     (mozjs_sym_statement, 7), (mozjs_sym_expression_statement, 422),
     (mozjs_sym_variable_declaration, 427), (mozjs_sym_lexical_declaration, 427),
     (mozjs_sym_using_declaration, 427), (mozjs_sym_statement_block, 422),
     (mozjs_sym_if_statement, 422), (mozjs_sym_switch_statement, 422),
     (mozjs_sym_for_statement, 422), (mozjs_sym_for_in_statement, 422),
     (mozjs_sym_while_statement, 422), (mozjs_sym_do_statement, 422),
     (mozjs_sym_try_statement, 422), (mozjs_sym_with_statement, 422),
     (mozjs_sym_break_statement, 422), (mozjs_sym_continue_statement, 422),
     (mozjs_sym_debugger_statement, 422), (mozjs_sym_return_statement, 422),
     (mozjs_sym_throw_statement, 422), (mozjs_sym_empty_statement, 422),
     (mozjs_sym_labeled_statement, 422), (mozjs_sym_parenthesized_expression, 556),
     (mozjs_sym_expression, 823), (mozjs_sym_primary_expression, 693),
     (mozjs_sym_yield_expression, 743), (mozjs_sym_object, 793),
     (mozjs_sym_object_pattern, 1845), (mozjs_sym_array, 793),
     (mozjs_sym_array_pattern, 1845), (mozjs_sym_jsx_element, 743),
     (mozjs_sym_jsx_opening_element, 1158), (mozjs_sym_jsx_self_closing_element, 743),
     (mozjs_sym_class, 793), (mozjs_sym_class_declaration, 427),
     (mozjs_sym_function_expression, 793), (mozjs_sym_function_declaration, 427),
     (mozjs_sym_generator_function, 793), (mozjs_sym_generator_function_declaration, 427),
     (mozjs_sym_arrow_function, 793), (mozjs_sym_call_expression, 793),
     (mozjs_sym_new_expression, 692), (mozjs_sym_await_expression, 743),
     (mozjs_sym_member_expression, 556), (mozjs_sym_subscript_expression, 556),
     (mozjs_sym_assignment_expression, 743), (mozjs_sym__augmented_assignment_lhs, 1146),
     (mozjs_sym_augmented_assignment_expression, 743), (mozjs_sym__destructuring_pattern, 1845),
     (mozjs_sym_ternary_expression, 743), (mozjs_sym_binary_expression, 743),
     (mozjs_sym_unary_expression, 743), (mozjs_sym_update_expression, 743),
     (mozjs_sym_sequence_expression, 1743), (mozjs_sym_string, 793),
     (mozjs_sym_template_string, 793), (mozjs_sym_regex, 793),
     (mozjs_sym_meta_property, 793), (mozjs_sym_decorator, 1112),
     (mozjs_sym_formal_parameters, 1847), (mozjs_aux_sym_program_repeat1, 7),
     (mozjs_aux_sym_export_statement_repeat1, 1278), (mozjs_sym_identifier, 9),
     (mozjs_anon_sym_export, 13), (mozjs_anon_sym_LBRACE, 15),
     (mozjs_anon_sym_RBRACE, 459), (mozjs_anon_sym_import, 17),
     (mozjs_anon_sym_with, 19), (mozjs_anon_sym_var, 21),
     (mozjs_anon_sym_let, 23), (mozjs_anon_sym_const, 25),
     (mozjs_anon_sym_using, 27), (mozjs_anon_sym_await, 29),
     (mozjs_anon_sym_if, 31), (mozjs_anon_sym_switch, 33),
     (mozjs_anon_sym_for, 35), (mozjs_anon_sym_LPAREN, 37),
     (mozjs_anon_sym_SEMI, 39), (mozjs_anon_sym_while, 41),
     (mozjs_anon_sym_do, 43), (mozjs_anon_sym_try, 45),
     (mozjs_anon_sym_break, 47), (mozjs_anon_sym_continue, 49),
     (mozjs_anon_sym_debugger, 51), (mozjs_anon_sym_return, 53),
     (mozjs_anon_sym_throw, 55), (mozjs_anon_sym_yield, 57),
     (mozjs_anon_sym_LBRACK, 59), (mozjs_anon_sym_LT, 61),
     (mozjs_anon_sym_DQUOTE, 63), (mozjs_anon_sym_SQUOTE, 65),
     (mozjs_anon_sym_class, 67), (mozjs_anon_sym_async, 69),
     (mozjs_anon_sym_function, 71), (mozjs_anon_sym_new, 73),
     (mozjs_anon_sym_PLUS, 75), (mozjs_anon_sym_DASH, 75),
     (mozjs_anon_sym_SLASH, 77), (mozjs_anon_sym_BANG, 79),
     (mozjs_anon_sym_TILDE, 79), (mozjs_anon_sym_typeof, 75),
     (mozjs_anon_sym_void, 75), (mozjs_anon_sym_delete, 75),
     (mozjs_anon_sym_PLUS_PLUS, 81), (mozjs_anon_sym_DASH_DASH, 81),
     (mozjs_sym_comment, 5), (mozjs_anon_sym_BQUOTE, 83),
     (mozjs_sym_number, 85), (mozjs_sym_private_property_identifier, 87),
     (mozjs_sym_this, 89), (mozjs_sym_super, 89),
     (mozjs_sym_true, 89), (mozjs_sym_false, 89),
     (mozjs_sym_null, 89), (mozjs_sym_undefined, 91),
     (mozjs_anon_sym_AT, 93), (mozjs_anon_sym_static, 95),
     (mozjs_anon_sym_get, 95), (mozjs_anon_sym_set, 95),
     (mozjs_sym_preproc, 97), (mozjs_sym_html_comment, 5)]"

definition mozjs_parse_row_29 :: "(TSSymbol \<times> nat) list" where
  "mozjs_parse_row_29 =
    [(mozjs_sym_import, 1340), (mozjs_sym_parenthesized_expression, 499),
     (mozjs_sym_expression, 586), (mozjs_sym_primary_expression, 584),
     (mozjs_sym_yield_expression, 638), (mozjs_sym_object, 645),
     (mozjs_sym_object_pattern, 1766), (mozjs_sym_array, 645),
     (mozjs_sym_array_pattern, 1766), (mozjs_sym_jsx_element, 638),
     (mozjs_sym_jsx_opening_element, 1152), (mozjs_sym_jsx_self_closing_element, 638),
     (mozjs_sym_class, 645), (mozjs_sym_function_expression, 645),
     (mozjs_sym_generator_function, 645), (mozjs_sym_arrow_function, 645),
     (mozjs_sym_call_expression, 645), (mozjs_sym_new_expression, 587),
     (mozjs_sym_await_expression, 638), (mozjs_sym_member_expression, 499),
     (mozjs_sym_subscript_expression, 499), (mozjs_sym_assignment_expression, 638),
     (mozjs_sym__augmented_assignment_lhs, 1144), (mozjs_sym_augmented_assignment_expression,
       638),
     (mozjs_sym__destructuring_pattern, 1766), (mozjs_sym_ternary_expression, 638),
     (mozjs_sym_binary_expression, 638), (mozjs_sym_unary_expression, 638),
     (mozjs_sym_update_expression, 638), (mozjs_sym_string, 645),
     (mozjs_sym_template_string, 645), (mozjs_sym_regex, 645),
     (mozjs_sym_meta_property, 645), (mozjs_sym_decorator, 1112),
     (mozjs_sym_formal_parameters, 1828), (mozjs_aux_sym_export_statement_repeat1, 1395),
     (mozjs_sym_identifier, 461), (mozjs_anon_sym_export, 463),
     (mozjs_anon_sym_STAR, 307), (mozjs_anon_sym_LBRACE, 465),
     (mozjs_anon_sym_COMMA, 311), (mozjs_anon_sym_RBRACE, 311),
     (mozjs_anon_sym_import, 390), (mozjs_anon_sym_let, 463),
     (mozjs_anon_sym_await, 467), (mozjs_anon_sym_LPAREN, 394),
     (mozjs_anon_sym_SEMI, 311), (mozjs_anon_sym_RPAREN, 311),
     (mozjs_anon_sym_in, 307), (mozjs_anon_sym_COLON, 311),
     (mozjs_anon_sym_yield, 469), (mozjs_anon_sym_EQ, 471),
     (mozjs_anon_sym_LBRACK, 473), (mozjs_anon_sym_RBRACK, 311),
     (mozjs_anon_sym_LT, 404), (mozjs_anon_sym_GT, 307),
     (mozjs_anon_sym_DOT, 307), (mozjs_anon_sym_DQUOTE, 407),
     (mozjs_anon_sym_SQUOTE, 409), (mozjs_anon_sym_class, 411),
     (mozjs_anon_sym_async, 476), (mozjs_anon_sym_function, 415),
     (mozjs_anon_sym_EQ_GT, 417), (mozjs_sym_optional_chain, 311),
     (mozjs_anon_sym_new, 478), (mozjs_anon_sym_PLUS_EQ, 344),
     (mozjs_anon_sym_DASH_EQ, 344), (mozjs_anon_sym_STAR_EQ, 344),
     (mozjs_anon_sym_SLASH_EQ, 344), (mozjs_anon_sym_PERCENT_EQ, 344),
     (mozjs_anon_sym_CARET_EQ, 344), (mozjs_anon_sym_AMP_EQ, 344),
     (mozjs_anon_sym_PIPE_EQ, 344), (mozjs_anon_sym_GT_GT_EQ, 344),
     (mozjs_anon_sym_GT_GT_GT_EQ, 344), (mozjs_anon_sym_LT_LT_EQ, 344),
     (mozjs_anon_sym_STAR_STAR_EQ, 344), (mozjs_anon_sym_AMP_AMP_EQ, 344),
     (mozjs_anon_sym_PIPE_PIPE_EQ, 344), (mozjs_anon_sym_QMARK_QMARK_EQ, 344),
     (mozjs_anon_sym_AMP_AMP, 307), (mozjs_anon_sym_PIPE_PIPE, 307),
     (mozjs_anon_sym_GT_GT, 307), (mozjs_anon_sym_GT_GT_GT, 307),
     (mozjs_anon_sym_LT_LT, 307), (mozjs_anon_sym_AMP, 307),
     (mozjs_anon_sym_CARET, 307), (mozjs_anon_sym_PIPE, 307),
     (mozjs_anon_sym_PLUS, 480), (mozjs_anon_sym_DASH, 480),
     (mozjs_anon_sym_SLASH, 424), (mozjs_anon_sym_PERCENT, 307),
     (mozjs_anon_sym_STAR_STAR, 307), (mozjs_anon_sym_LT_EQ, 311),
     (mozjs_anon_sym_EQ_EQ, 307), (mozjs_anon_sym_EQ_EQ_EQ, 311),
     (mozjs_anon_sym_BANG_EQ, 307), (mozjs_anon_sym_BANG_EQ_EQ, 311),
     (mozjs_anon_sym_GT_EQ, 311), (mozjs_anon_sym_QMARK_QMARK, 307),
     (mozjs_anon_sym_instanceof, 307), (mozjs_anon_sym_BANG, 483),
     (mozjs_anon_sym_TILDE, 485), (mozjs_anon_sym_typeof, 483),
     (mozjs_anon_sym_void, 483), (mozjs_anon_sym_delete, 483),
     (mozjs_anon_sym_PLUS_PLUS, 487), (mozjs_anon_sym_DASH_DASH, 487),
     (mozjs_sym_comment, 5), (mozjs_anon_sym_BQUOTE, 434),
     (mozjs_sym_number, 437), (mozjs_sym_private_property_identifier, 490),
     (mozjs_sym_this, 441), (mozjs_sym_super, 441),
     (mozjs_sym_true, 441), (mozjs_sym_false, 441),
     (mozjs_sym_null, 441), (mozjs_sym_undefined, 492),
     (mozjs_anon_sym_AT, 93), (mozjs_anon_sym_static, 463),
     (mozjs_anon_sym_get, 463), (mozjs_anon_sym_set, 463),
     (mozjs_sym__ternary_qmark, 311), (mozjs_sym_html_comment, 5)]"

definition mozjs_parse_row_30 :: "(TSSymbol \<times> nat) list" where
  "mozjs_parse_row_30 =
    [(mozjs_sym_import, 1333), (mozjs_sym_parenthesized_expression, 556),
     (mozjs_sym_expression, 698), (mozjs_sym_primary_expression, 693),
     (mozjs_sym_yield_expression, 743), (mozjs_sym_object, 793),
     (mozjs_sym_object_pattern, 1845), (mozjs_sym_array, 793),
     (mozjs_sym_array_pattern, 1845), (mozjs_sym_jsx_element, 743),
     (mozjs_sym_jsx_opening_element, 1158), (mozjs_sym_jsx_self_closing_element, 743),
     (mozjs_sym_class, 793), (mozjs_sym_function_expression, 793),
     (mozjs_sym_generator_function, 793), (mozjs_sym_arrow_function, 793),
     (mozjs_sym_call_expression, 793), (mozjs_sym_new_expression, 692),
     (mozjs_sym_await_expression, 743), (mozjs_sym_member_expression, 556),
     (mozjs_sym_subscript_expression, 556), (mozjs_sym_assignment_expression, 743),
     (mozjs_sym__augmented_assignment_lhs, 1146), (mozjs_sym_augmented_assignment_expression,
       743),
     (mozjs_sym__destructuring_pattern, 1845), (mozjs_sym_ternary_expression, 743),
     (mozjs_sym_binary_expression, 743), (mozjs_sym_unary_expression, 743),
     (mozjs_sym_update_expression, 743), (mozjs_sym_string, 793),
     (mozjs_sym_template_string, 793), (mozjs_sym_regex, 793),
     (mozjs_sym_meta_property, 793), (mozjs_sym_decorator, 1112),
     (mozjs_sym_formal_parameters, 1847), (mozjs_aux_sym_export_statement_repeat1, 1331),
     (mozjs_sym_identifier, 303), (mozjs_anon_sym_export, 305),
     (mozjs_anon_sym_STAR, 307), (mozjs_anon_sym_LBRACE, 309),
     (mozjs_anon_sym_COMMA, 311), (mozjs_anon_sym_import, 315),
     (mozjs_anon_sym_let, 305), (mozjs_anon_sym_using, 317),
     (mozjs_anon_sym_await, 319), (mozjs_anon_sym_LPAREN, 494),
     (mozjs_anon_sym_SEMI, 311), (mozjs_anon_sym_in, 307),
     (mozjs_anon_sym_COLON, 497), (mozjs_anon_sym_yield, 57),
     (mozjs_anon_sym_EQ, 499), (mozjs_anon_sym_LBRACK, 330),
     (mozjs_anon_sym_LT, 333), (mozjs_anon_sym_GT, 307),
     (mozjs_anon_sym_DOT, 307), (mozjs_anon_sym_DQUOTE, 63),
     (mozjs_anon_sym_SQUOTE, 65), (mozjs_anon_sym_class, 336),
     (mozjs_anon_sym_async, 338), (mozjs_anon_sym_function, 340),
     (mozjs_anon_sym_EQ_GT, 342), (mozjs_sym_optional_chain, 311),
     (mozjs_anon_sym_new, 73), (mozjs_anon_sym_PLUS_EQ, 344),
     (mozjs_anon_sym_DASH_EQ, 344), (mozjs_anon_sym_STAR_EQ, 344),
     (mozjs_anon_sym_SLASH_EQ, 344), (mozjs_anon_sym_PERCENT_EQ, 344),
     (mozjs_anon_sym_CARET_EQ, 344), (mozjs_anon_sym_AMP_EQ, 344),
     (mozjs_anon_sym_PIPE_EQ, 344), (mozjs_anon_sym_GT_GT_EQ, 344),
     (mozjs_anon_sym_GT_GT_GT_EQ, 344), (mozjs_anon_sym_LT_LT_EQ, 344),
     (mozjs_anon_sym_STAR_STAR_EQ, 344), (mozjs_anon_sym_AMP_AMP_EQ, 344),
     (mozjs_anon_sym_PIPE_PIPE_EQ, 344), (mozjs_anon_sym_QMARK_QMARK_EQ, 344),
     (mozjs_anon_sym_AMP_AMP, 307), (mozjs_anon_sym_PIPE_PIPE, 307),
     (mozjs_anon_sym_GT_GT, 307), (mozjs_anon_sym_GT_GT_GT, 307),
     (mozjs_anon_sym_LT_LT, 307), (mozjs_anon_sym_AMP, 307),
     (mozjs_anon_sym_CARET, 307), (mozjs_anon_sym_PIPE, 307),
     (mozjs_anon_sym_PLUS, 346), (mozjs_anon_sym_DASH, 346),
     (mozjs_anon_sym_SLASH, 349), (mozjs_anon_sym_PERCENT, 307),
     (mozjs_anon_sym_STAR_STAR, 307), (mozjs_anon_sym_LT_EQ, 311),
     (mozjs_anon_sym_EQ_EQ, 307), (mozjs_anon_sym_EQ_EQ_EQ, 311),
     (mozjs_anon_sym_BANG_EQ, 307), (mozjs_anon_sym_BANG_EQ_EQ, 311),
     (mozjs_anon_sym_GT_EQ, 311), (mozjs_anon_sym_QMARK_QMARK, 307),
     (mozjs_anon_sym_instanceof, 307), (mozjs_anon_sym_BANG, 75),
     (mozjs_anon_sym_TILDE, 79), (mozjs_anon_sym_typeof, 75),
     (mozjs_anon_sym_void, 75), (mozjs_anon_sym_delete, 75),
     (mozjs_anon_sym_PLUS_PLUS, 352), (mozjs_anon_sym_DASH_DASH, 352),
     (mozjs_sym_comment, 5), (mozjs_anon_sym_BQUOTE, 355),
     (mozjs_sym_number, 85), (mozjs_sym_private_property_identifier, 358),
     (mozjs_sym_this, 89), (mozjs_sym_super, 89),
     (mozjs_sym_true, 89), (mozjs_sym_false, 89),
     (mozjs_sym_null, 89), (mozjs_sym_undefined, 91),
     (mozjs_anon_sym_AT, 93), (mozjs_anon_sym_static, 305),
     (mozjs_anon_sym_get, 305), (mozjs_anon_sym_set, 305),
     (mozjs_sym__automatic_semicolon, 311), (mozjs_sym__ternary_qmark, 311),
     (mozjs_sym_html_comment, 5)]"

definition mozjs_parse_row_31 :: "(TSSymbol \<times> nat) list" where
  "mozjs_parse_row_31 =
    [(mozjs_sym_import, 1333), (mozjs_sym_parenthesized_expression, 556),
     (mozjs_sym_expression, 698), (mozjs_sym_primary_expression, 693),
     (mozjs_sym_yield_expression, 743), (mozjs_sym_object, 793),
     (mozjs_sym_object_pattern, 1845), (mozjs_sym_array, 793),
     (mozjs_sym_array_pattern, 1845), (mozjs_sym_jsx_element, 743),
     (mozjs_sym_jsx_opening_element, 1158), (mozjs_sym_jsx_self_closing_element, 743),
     (mozjs_sym_class, 793), (mozjs_sym_function_expression, 793),
     (mozjs_sym_generator_function, 793), (mozjs_sym_arrow_function, 793),
     (mozjs_sym_call_expression, 793), (mozjs_sym_new_expression, 692),
     (mozjs_sym_await_expression, 743), (mozjs_sym_member_expression, 556),
     (mozjs_sym_subscript_expression, 556), (mozjs_sym_assignment_expression, 743),
     (mozjs_sym__augmented_assignment_lhs, 1146), (mozjs_sym_augmented_assignment_expression,
       743),
     (mozjs_sym__destructuring_pattern, 1845), (mozjs_sym_ternary_expression, 743),
     (mozjs_sym_binary_expression, 743), (mozjs_sym_unary_expression, 743),
     (mozjs_sym_update_expression, 743), (mozjs_sym_string, 793),
     (mozjs_sym_template_string, 793), (mozjs_sym_regex, 793),
     (mozjs_sym_meta_property, 793), (mozjs_sym_decorator, 1112),
     (mozjs_sym_formal_parameters, 1847), (mozjs_aux_sym_export_statement_repeat1, 1331),
     (mozjs_sym_identifier, 303), (mozjs_anon_sym_export, 305),
     (mozjs_anon_sym_STAR, 307), (mozjs_anon_sym_LBRACE, 309),
     (mozjs_anon_sym_COMMA, 311), (mozjs_anon_sym_import, 315),
     (mozjs_anon_sym_let, 305), (mozjs_anon_sym_using, 317),
     (mozjs_anon_sym_await, 319), (mozjs_anon_sym_LPAREN, 494),
     (mozjs_anon_sym_SEMI, 311), (mozjs_anon_sym_in, 307),
     (mozjs_anon_sym_COLON, 501), (mozjs_anon_sym_yield, 57),
     (mozjs_anon_sym_EQ, 499), (mozjs_anon_sym_LBRACK, 330),
     (mozjs_anon_sym_LT, 333), (mozjs_anon_sym_GT, 307),
     (mozjs_anon_sym_DOT, 307), (mozjs_anon_sym_DQUOTE, 63),
     (mozjs_anon_sym_SQUOTE, 65), (mozjs_anon_sym_class, 336),
     (mozjs_anon_sym_async, 338), (mozjs_anon_sym_function, 340),
     (mozjs_anon_sym_EQ_GT, 342), (mozjs_sym_optional_chain, 311),
     (mozjs_anon_sym_new, 73), (mozjs_anon_sym_PLUS_EQ, 344),
     (mozjs_anon_sym_DASH_EQ, 344), (mozjs_anon_sym_STAR_EQ, 344),
     (mozjs_anon_sym_SLASH_EQ, 344), (mozjs_anon_sym_PERCENT_EQ, 344),
     (mozjs_anon_sym_CARET_EQ, 344), (mozjs_anon_sym_AMP_EQ, 344),
     (mozjs_anon_sym_PIPE_EQ, 344), (mozjs_anon_sym_GT_GT_EQ, 344),
     (mozjs_anon_sym_GT_GT_GT_EQ, 344), (mozjs_anon_sym_LT_LT_EQ, 344),
     (mozjs_anon_sym_STAR_STAR_EQ, 344), (mozjs_anon_sym_AMP_AMP_EQ, 344),
     (mozjs_anon_sym_PIPE_PIPE_EQ, 344), (mozjs_anon_sym_QMARK_QMARK_EQ, 344),
     (mozjs_anon_sym_AMP_AMP, 307), (mozjs_anon_sym_PIPE_PIPE, 307),
     (mozjs_anon_sym_GT_GT, 307), (mozjs_anon_sym_GT_GT_GT, 307),
     (mozjs_anon_sym_LT_LT, 307), (mozjs_anon_sym_AMP, 307),
     (mozjs_anon_sym_CARET, 307), (mozjs_anon_sym_PIPE, 307),
     (mozjs_anon_sym_PLUS, 346), (mozjs_anon_sym_DASH, 346),
     (mozjs_anon_sym_SLASH, 349), (mozjs_anon_sym_PERCENT, 307),
     (mozjs_anon_sym_STAR_STAR, 307), (mozjs_anon_sym_LT_EQ, 311),
     (mozjs_anon_sym_EQ_EQ, 307), (mozjs_anon_sym_EQ_EQ_EQ, 311),
     (mozjs_anon_sym_BANG_EQ, 307), (mozjs_anon_sym_BANG_EQ_EQ, 311),
     (mozjs_anon_sym_GT_EQ, 311), (mozjs_anon_sym_QMARK_QMARK, 307),
     (mozjs_anon_sym_instanceof, 307), (mozjs_anon_sym_BANG, 75),
     (mozjs_anon_sym_TILDE, 79), (mozjs_anon_sym_typeof, 75),
     (mozjs_anon_sym_void, 75), (mozjs_anon_sym_delete, 75),
     (mozjs_anon_sym_PLUS_PLUS, 352), (mozjs_anon_sym_DASH_DASH, 352),
     (mozjs_sym_comment, 5), (mozjs_anon_sym_BQUOTE, 355),
     (mozjs_sym_number, 85), (mozjs_sym_private_property_identifier, 358),
     (mozjs_sym_this, 89), (mozjs_sym_super, 89),
     (mozjs_sym_true, 89), (mozjs_sym_false, 89),
     (mozjs_sym_null, 89), (mozjs_sym_undefined, 91),
     (mozjs_anon_sym_AT, 93), (mozjs_anon_sym_static, 305),
     (mozjs_anon_sym_get, 305), (mozjs_anon_sym_set, 305),
     (mozjs_sym__automatic_semicolon, 311), (mozjs_sym__ternary_qmark, 311),
     (mozjs_sym_html_comment, 5)]"

definition mozjs_parse_row_32 :: "(TSSymbol \<times> nat) list" where
  "mozjs_parse_row_32 =
    [(mozjs_sym_export_statement, 422), (mozjs_sym_declaration, 422),
     (mozjs_sym_import, 1333), (mozjs_sym_import_statement, 422),
     (mozjs_sym_statement, 443), (mozjs_sym_expression_statement, 422),
     (mozjs_sym_variable_declaration, 427), (mozjs_sym_lexical_declaration, 427),
     (mozjs_sym_using_declaration, 427), (mozjs_sym_statement_block, 422),
     (mozjs_sym_if_statement, 422), (mozjs_sym_switch_statement, 422),
     (mozjs_sym_for_statement, 422), (mozjs_sym_for_in_statement, 422),
     (mozjs_sym_while_statement, 422), (mozjs_sym_do_statement, 422),
     (mozjs_sym_try_statement, 422), (mozjs_sym_with_statement, 422),
     (mozjs_sym_break_statement, 422), (mozjs_sym_continue_statement, 422),
     (mozjs_sym_debugger_statement, 422), (mozjs_sym_return_statement, 422),
     (mozjs_sym_throw_statement, 422), (mozjs_sym_empty_statement, 422),
     (mozjs_sym_labeled_statement, 422), (mozjs_sym_parenthesized_expression, 556),
     (mozjs_sym_expression, 823), (mozjs_sym_primary_expression, 693),
     (mozjs_sym_yield_expression, 743), (mozjs_sym_object, 793),
     (mozjs_sym_object_pattern, 1845), (mozjs_sym_array, 793),
     (mozjs_sym_array_pattern, 1845), (mozjs_sym_jsx_element, 743),
     (mozjs_sym_jsx_opening_element, 1158), (mozjs_sym_jsx_self_closing_element, 743),
     (mozjs_sym_class, 793), (mozjs_sym_class_declaration, 427),
     (mozjs_sym_function_expression, 793), (mozjs_sym_function_declaration, 427),
     (mozjs_sym_generator_function, 793), (mozjs_sym_generator_function_declaration, 427),
     (mozjs_sym_arrow_function, 793), (mozjs_sym_call_expression, 793),
     (mozjs_sym_new_expression, 692), (mozjs_sym_await_expression, 743),
     (mozjs_sym_member_expression, 556), (mozjs_sym_subscript_expression, 556),
     (mozjs_sym_assignment_expression, 743), (mozjs_sym__augmented_assignment_lhs, 1146),
     (mozjs_sym_augmented_assignment_expression, 743), (mozjs_sym__destructuring_pattern, 1845),
     (mozjs_sym_ternary_expression, 743), (mozjs_sym_binary_expression, 743),
     (mozjs_sym_unary_expression, 743), (mozjs_sym_update_expression, 743),
     (mozjs_sym_sequence_expression, 1743), (mozjs_sym_string, 793),
     (mozjs_sym_template_string, 793), (mozjs_sym_regex, 793),
     (mozjs_sym_meta_property, 793), (mozjs_sym_decorator, 1112),
     (mozjs_sym_formal_parameters, 1847), (mozjs_aux_sym_export_statement_repeat1, 1308),
     (mozjs_sym_identifier, 503), (mozjs_anon_sym_export, 505),
     (mozjs_anon_sym_LBRACE, 507), (mozjs_anon_sym_import, 17),
     (mozjs_anon_sym_with, 509), (mozjs_anon_sym_var, 21),
     (mozjs_anon_sym_let, 511), (mozjs_anon_sym_const, 25),
     (mozjs_anon_sym_using, 27), (mozjs_anon_sym_await, 513),
     (mozjs_anon_sym_if, 515), (mozjs_anon_sym_switch, 33),
     (mozjs_anon_sym_for, 517), (mozjs_anon_sym_LPAREN, 37),
     (mozjs_anon_sym_SEMI, 39), (mozjs_anon_sym_while, 519),
     (mozjs_anon_sym_do, 43), (mozjs_anon_sym_try, 45),
     (mozjs_anon_sym_break, 47), (mozjs_anon_sym_continue, 49),
     (mozjs_anon_sym_debugger, 51), (mozjs_anon_sym_return, 53),
     (mozjs_anon_sym_throw, 55), (mozjs_anon_sym_yield, 57),
     (mozjs_anon_sym_LBRACK, 59), (mozjs_anon_sym_LT, 61),
     (mozjs_anon_sym_DQUOTE, 63), (mozjs_anon_sym_SQUOTE, 65),
     (mozjs_anon_sym_class, 521), (mozjs_anon_sym_async, 523),
     (mozjs_anon_sym_function, 525), (mozjs_anon_sym_new, 73),
     (mozjs_anon_sym_PLUS, 75), (mozjs_anon_sym_DASH, 75),
     (mozjs_anon_sym_SLASH, 77), (mozjs_anon_sym_BANG, 79),
     (mozjs_anon_sym_TILDE, 79), (mozjs_anon_sym_typeof, 75),
     (mozjs_anon_sym_void, 75), (mozjs_anon_sym_delete, 75),
     (mozjs_anon_sym_PLUS_PLUS, 81), (mozjs_anon_sym_DASH_DASH, 81),
     (mozjs_sym_comment, 5), (mozjs_anon_sym_BQUOTE, 83),
     (mozjs_sym_number, 85), (mozjs_sym_private_property_identifier, 87),
     (mozjs_sym_this, 89), (mozjs_sym_super, 89),
     (mozjs_sym_true, 89), (mozjs_sym_false, 89),
     (mozjs_sym_null, 89), (mozjs_sym_undefined, 91),
     (mozjs_anon_sym_AT, 93), (mozjs_anon_sym_static, 527),
     (mozjs_anon_sym_get, 527), (mozjs_anon_sym_set, 527),
     (mozjs_sym_preproc, 97), (mozjs_sym_html_comment, 5)]"

definition mozjs_parse_row_33 :: "(TSSymbol \<times> nat) list" where
  "mozjs_parse_row_33 =
    [(mozjs_sym_export_statement, 422), (mozjs_sym_declaration, 422),
     (mozjs_sym_import, 1333), (mozjs_sym_import_statement, 422),
     (mozjs_sym_statement, 468), (mozjs_sym_expression_statement, 422),
     (mozjs_sym_variable_declaration, 427), (mozjs_sym_lexical_declaration, 427),
     (mozjs_sym_using_declaration, 427), (mozjs_sym_statement_block, 422),
     (mozjs_sym_if_statement, 422), (mozjs_sym_switch_statement, 422),
     (mozjs_sym_for_statement, 422), (mozjs_sym_for_in_statement, 422),
     (mozjs_sym_while_statement, 422), (mozjs_sym_do_statement, 422),
     (mozjs_sym_try_statement, 422), (mozjs_sym_with_statement, 422),
     (mozjs_sym_break_statement, 422), (mozjs_sym_continue_statement, 422),
     (mozjs_sym_debugger_statement, 422), (mozjs_sym_return_statement, 422),
     (mozjs_sym_throw_statement, 422), (mozjs_sym_empty_statement, 422),
     (mozjs_sym_labeled_statement, 422), (mozjs_sym_parenthesized_expression, 556),
     (mozjs_sym_expression, 823), (mozjs_sym_primary_expression, 693),
     (mozjs_sym_yield_expression, 743), (mozjs_sym_object, 793),
     (mozjs_sym_object_pattern, 1845), (mozjs_sym_array, 793),
     (mozjs_sym_array_pattern, 1845), (mozjs_sym_jsx_element, 743),
     (mozjs_sym_jsx_opening_element, 1158), (mozjs_sym_jsx_self_closing_element, 743),
     (mozjs_sym_class, 793), (mozjs_sym_class_declaration, 427),
     (mozjs_sym_function_expression, 793), (mozjs_sym_function_declaration, 427),
     (mozjs_sym_generator_function, 793), (mozjs_sym_generator_function_declaration, 427),
     (mozjs_sym_arrow_function, 793), (mozjs_sym_call_expression, 793),
     (mozjs_sym_new_expression, 692), (mozjs_sym_await_expression, 743),
     (mozjs_sym_member_expression, 556), (mozjs_sym_subscript_expression, 556),
     (mozjs_sym_assignment_expression, 743), (mozjs_sym__augmented_assignment_lhs, 1146),
     (mozjs_sym_augmented_assignment_expression, 743), (mozjs_sym__destructuring_pattern, 1845),
     (mozjs_sym_ternary_expression, 743), (mozjs_sym_binary_expression, 743),
     (mozjs_sym_unary_expression, 743), (mozjs_sym_update_expression, 743),
     (mozjs_sym_sequence_expression, 1743), (mozjs_sym_string, 793),
     (mozjs_sym_template_string, 793), (mozjs_sym_regex, 793),
     (mozjs_sym_meta_property, 793), (mozjs_sym_decorator, 1112),
     (mozjs_sym_formal_parameters, 1847), (mozjs_aux_sym_export_statement_repeat1, 1278),
     (mozjs_sym_identifier, 9), (mozjs_anon_sym_export, 13),
     (mozjs_anon_sym_LBRACE, 15), (mozjs_anon_sym_import, 17),
     (mozjs_anon_sym_with, 19), (mozjs_anon_sym_var, 21),
     (mozjs_anon_sym_let, 23), (mozjs_anon_sym_const, 25),
     (mozjs_anon_sym_using, 27), (mozjs_anon_sym_await, 29),
     (mozjs_anon_sym_if, 31), (mozjs_anon_sym_switch, 33),
     (mozjs_anon_sym_for, 35), (mozjs_anon_sym_LPAREN, 37),
     (mozjs_anon_sym_SEMI, 39), (mozjs_anon_sym_while, 41),
     (mozjs_anon_sym_do, 43), (mozjs_anon_sym_try, 45),
     (mozjs_anon_sym_break, 47), (mozjs_anon_sym_continue, 49),
     (mozjs_anon_sym_debugger, 51), (mozjs_anon_sym_return, 53),
     (mozjs_anon_sym_throw, 55), (mozjs_anon_sym_yield, 57),
     (mozjs_anon_sym_LBRACK, 59), (mozjs_anon_sym_LT, 61),
     (mozjs_anon_sym_DQUOTE, 63), (mozjs_anon_sym_SQUOTE, 65),
     (mozjs_anon_sym_class, 67), (mozjs_anon_sym_async, 69),
     (mozjs_anon_sym_function, 71), (mozjs_anon_sym_new, 73),
     (mozjs_anon_sym_PLUS, 75), (mozjs_anon_sym_DASH, 75),
     (mozjs_anon_sym_SLASH, 77), (mozjs_anon_sym_BANG, 79),
     (mozjs_anon_sym_TILDE, 79), (mozjs_anon_sym_typeof, 75),
     (mozjs_anon_sym_void, 75), (mozjs_anon_sym_delete, 75),
     (mozjs_anon_sym_PLUS_PLUS, 81), (mozjs_anon_sym_DASH_DASH, 81),
     (mozjs_sym_comment, 5), (mozjs_anon_sym_BQUOTE, 83),
     (mozjs_sym_number, 85), (mozjs_sym_private_property_identifier, 87),
     (mozjs_sym_this, 89), (mozjs_sym_super, 89),
     (mozjs_sym_true, 89), (mozjs_sym_false, 89),
     (mozjs_sym_null, 89), (mozjs_sym_undefined, 91),
     (mozjs_anon_sym_AT, 93), (mozjs_anon_sym_static, 95),
     (mozjs_anon_sym_get, 95), (mozjs_anon_sym_set, 95),
     (mozjs_sym_preproc, 97), (mozjs_sym_html_comment, 5)]"

definition mozjs_parse_row_34 :: "(TSSymbol \<times> nat) list" where
  "mozjs_parse_row_34 =
    [(mozjs_sym_export_statement, 422), (mozjs_sym_declaration, 422),
     (mozjs_sym_import, 1333), (mozjs_sym_import_statement, 422),
     (mozjs_sym_statement, 469), (mozjs_sym_expression_statement, 422),
     (mozjs_sym_variable_declaration, 427), (mozjs_sym_lexical_declaration, 427),
     (mozjs_sym_using_declaration, 427), (mozjs_sym_statement_block, 422),
     (mozjs_sym_if_statement, 422), (mozjs_sym_switch_statement, 422),
     (mozjs_sym_for_statement, 422), (mozjs_sym_for_in_statement, 422),
     (mozjs_sym_while_statement, 422), (mozjs_sym_do_statement, 422),
     (mozjs_sym_try_statement, 422), (mozjs_sym_with_statement, 422),
     (mozjs_sym_break_statement, 422), (mozjs_sym_continue_statement, 422),
     (mozjs_sym_debugger_statement, 422), (mozjs_sym_return_statement, 422),
     (mozjs_sym_throw_statement, 422), (mozjs_sym_empty_statement, 422),
     (mozjs_sym_labeled_statement, 422), (mozjs_sym_parenthesized_expression, 556),
     (mozjs_sym_expression, 823), (mozjs_sym_primary_expression, 693),
     (mozjs_sym_yield_expression, 743), (mozjs_sym_object, 793),
     (mozjs_sym_object_pattern, 1845), (mozjs_sym_array, 793),
     (mozjs_sym_array_pattern, 1845), (mozjs_sym_jsx_element, 743),
     (mozjs_sym_jsx_opening_element, 1158), (mozjs_sym_jsx_self_closing_element, 743),
     (mozjs_sym_class, 793), (mozjs_sym_class_declaration, 427),
     (mozjs_sym_function_expression, 793), (mozjs_sym_function_declaration, 427),
     (mozjs_sym_generator_function, 793), (mozjs_sym_generator_function_declaration, 427),
     (mozjs_sym_arrow_function, 793), (mozjs_sym_call_expression, 793),
     (mozjs_sym_new_expression, 692), (mozjs_sym_await_expression, 743),
     (mozjs_sym_member_expression, 556), (mozjs_sym_subscript_expression, 556),
     (mozjs_sym_assignment_expression, 743), (mozjs_sym__augmented_assignment_lhs, 1146),
     (mozjs_sym_augmented_assignment_expression, 743), (mozjs_sym__destructuring_pattern, 1845),
     (mozjs_sym_ternary_expression, 743), (mozjs_sym_binary_expression, 743),
     (mozjs_sym_unary_expression, 743), (mozjs_sym_update_expression, 743),
     (mozjs_sym_sequence_expression, 1743), (mozjs_sym_string, 793),
     (mozjs_sym_template_string, 793), (mozjs_sym_regex, 793),
     (mozjs_sym_meta_property, 793), (mozjs_sym_decorator, 1112),
     (mozjs_sym_formal_parameters, 1847), (mozjs_aux_sym_export_statement_repeat1, 1278),
     (mozjs_sym_identifier, 9), (mozjs_anon_sym_export, 13),
     (mozjs_anon_sym_LBRACE, 15), (mozjs_anon_sym_import, 17),
     (mozjs_anon_sym_with, 19), (mozjs_anon_sym_var, 21),
     (mozjs_anon_sym_let, 23), (mozjs_anon_sym_const, 25),
     (mozjs_anon_sym_using, 27), (mozjs_anon_sym_await, 29),
     (mozjs_anon_sym_if, 31), (mozjs_anon_sym_switch, 33),
     (mozjs_anon_sym_for, 35), (mozjs_anon_sym_LPAREN, 37),
     (mozjs_anon_sym_SEMI, 39), (mozjs_anon_sym_while, 41),
     (mozjs_anon_sym_do, 43), (mozjs_anon_sym_try, 45),
     (mozjs_anon_sym_break, 47), (mozjs_anon_sym_continue, 49),
     (mozjs_anon_sym_debugger, 51), (mozjs_anon_sym_return, 53),
     (mozjs_anon_sym_throw, 55), (mozjs_anon_sym_yield, 57),
     (mozjs_anon_sym_LBRACK, 59), (mozjs_anon_sym_LT, 61),
     (mozjs_anon_sym_DQUOTE, 63), (mozjs_anon_sym_SQUOTE, 65),
     (mozjs_anon_sym_class, 67), (mozjs_anon_sym_async, 69),
     (mozjs_anon_sym_function, 71), (mozjs_anon_sym_new, 73),
     (mozjs_anon_sym_PLUS, 75), (mozjs_anon_sym_DASH, 75),
     (mozjs_anon_sym_SLASH, 77), (mozjs_anon_sym_BANG, 79),
     (mozjs_anon_sym_TILDE, 79), (mozjs_anon_sym_typeof, 75),
     (mozjs_anon_sym_void, 75), (mozjs_anon_sym_delete, 75),
     (mozjs_anon_sym_PLUS_PLUS, 81), (mozjs_anon_sym_DASH_DASH, 81),
     (mozjs_sym_comment, 5), (mozjs_anon_sym_BQUOTE, 83),
     (mozjs_sym_number, 85), (mozjs_sym_private_property_identifier, 87),
     (mozjs_sym_this, 89), (mozjs_sym_super, 89),
     (mozjs_sym_true, 89), (mozjs_sym_false, 89),
     (mozjs_sym_null, 89), (mozjs_sym_undefined, 91),
     (mozjs_anon_sym_AT, 93), (mozjs_anon_sym_static, 95),
     (mozjs_anon_sym_get, 95), (mozjs_anon_sym_set, 95),
     (mozjs_sym_preproc, 97), (mozjs_sym_html_comment, 5)]"

definition mozjs_parse_row_35 :: "(TSSymbol \<times> nat) list" where
  "mozjs_parse_row_35 =
    [(mozjs_sym_export_statement, 422), (mozjs_sym_declaration, 422),
     (mozjs_sym_import, 1333), (mozjs_sym_import_statement, 422),
     (mozjs_sym_statement, 471), (mozjs_sym_expression_statement, 422),
     (mozjs_sym_variable_declaration, 427), (mozjs_sym_lexical_declaration, 427),
     (mozjs_sym_using_declaration, 427), (mozjs_sym_statement_block, 422),
     (mozjs_sym_if_statement, 422), (mozjs_sym_switch_statement, 422),
     (mozjs_sym_for_statement, 422), (mozjs_sym_for_in_statement, 422),
     (mozjs_sym_while_statement, 422), (mozjs_sym_do_statement, 422),
     (mozjs_sym_try_statement, 422), (mozjs_sym_with_statement, 422),
     (mozjs_sym_break_statement, 422), (mozjs_sym_continue_statement, 422),
     (mozjs_sym_debugger_statement, 422), (mozjs_sym_return_statement, 422),
     (mozjs_sym_throw_statement, 422), (mozjs_sym_empty_statement, 422),
     (mozjs_sym_labeled_statement, 422), (mozjs_sym_parenthesized_expression, 556),
     (mozjs_sym_expression, 823), (mozjs_sym_primary_expression, 693),
     (mozjs_sym_yield_expression, 743), (mozjs_sym_object, 793),
     (mozjs_sym_object_pattern, 1845), (mozjs_sym_array, 793),
     (mozjs_sym_array_pattern, 1845), (mozjs_sym_jsx_element, 743),
     (mozjs_sym_jsx_opening_element, 1158), (mozjs_sym_jsx_self_closing_element, 743),
     (mozjs_sym_class, 793), (mozjs_sym_class_declaration, 427),
     (mozjs_sym_function_expression, 793), (mozjs_sym_function_declaration, 427),
     (mozjs_sym_generator_function, 793), (mozjs_sym_generator_function_declaration, 427),
     (mozjs_sym_arrow_function, 793), (mozjs_sym_call_expression, 793),
     (mozjs_sym_new_expression, 692), (mozjs_sym_await_expression, 743),
     (mozjs_sym_member_expression, 556), (mozjs_sym_subscript_expression, 556),
     (mozjs_sym_assignment_expression, 743), (mozjs_sym__augmented_assignment_lhs, 1146),
     (mozjs_sym_augmented_assignment_expression, 743), (mozjs_sym__destructuring_pattern, 1845),
     (mozjs_sym_ternary_expression, 743), (mozjs_sym_binary_expression, 743),
     (mozjs_sym_unary_expression, 743), (mozjs_sym_update_expression, 743),
     (mozjs_sym_sequence_expression, 1743), (mozjs_sym_string, 793),
     (mozjs_sym_template_string, 793), (mozjs_sym_regex, 793),
     (mozjs_sym_meta_property, 793), (mozjs_sym_decorator, 1112),
     (mozjs_sym_formal_parameters, 1847), (mozjs_aux_sym_export_statement_repeat1, 1278),
     (mozjs_sym_identifier, 9), (mozjs_anon_sym_export, 13),
     (mozjs_anon_sym_LBRACE, 15), (mozjs_anon_sym_import, 17),
     (mozjs_anon_sym_with, 19), (mozjs_anon_sym_var, 21),
     (mozjs_anon_sym_let, 23), (mozjs_anon_sym_const, 25),
     (mozjs_anon_sym_using, 27), (mozjs_anon_sym_await, 29),
     (mozjs_anon_sym_if, 31), (mozjs_anon_sym_switch, 33),
     (mozjs_anon_sym_for, 35), (mozjs_anon_sym_LPAREN, 37),
     (mozjs_anon_sym_SEMI, 39), (mozjs_anon_sym_while, 41),
     (mozjs_anon_sym_do, 43), (mozjs_anon_sym_try, 45),
     (mozjs_anon_sym_break, 47), (mozjs_anon_sym_continue, 49),
     (mozjs_anon_sym_debugger, 51), (mozjs_anon_sym_return, 53),
     (mozjs_anon_sym_throw, 55), (mozjs_anon_sym_yield, 57),
     (mozjs_anon_sym_LBRACK, 59), (mozjs_anon_sym_LT, 61),
     (mozjs_anon_sym_DQUOTE, 63), (mozjs_anon_sym_SQUOTE, 65),
     (mozjs_anon_sym_class, 67), (mozjs_anon_sym_async, 69),
     (mozjs_anon_sym_function, 71), (mozjs_anon_sym_new, 73),
     (mozjs_anon_sym_PLUS, 75), (mozjs_anon_sym_DASH, 75),
     (mozjs_anon_sym_SLASH, 77), (mozjs_anon_sym_BANG, 79),
     (mozjs_anon_sym_TILDE, 79), (mozjs_anon_sym_typeof, 75),
     (mozjs_anon_sym_void, 75), (mozjs_anon_sym_delete, 75),
     (mozjs_anon_sym_PLUS_PLUS, 81), (mozjs_anon_sym_DASH_DASH, 81),
     (mozjs_sym_comment, 5), (mozjs_anon_sym_BQUOTE, 83),
     (mozjs_sym_number, 85), (mozjs_sym_private_property_identifier, 87),
     (mozjs_sym_this, 89), (mozjs_sym_super, 89),
     (mozjs_sym_true, 89), (mozjs_sym_false, 89),
     (mozjs_sym_null, 89), (mozjs_sym_undefined, 91),
     (mozjs_anon_sym_AT, 93), (mozjs_anon_sym_static, 95),
     (mozjs_anon_sym_get, 95), (mozjs_anon_sym_set, 95),
     (mozjs_sym_preproc, 97), (mozjs_sym_html_comment, 5)]"

definition mozjs_parse_row_36 :: "(TSSymbol \<times> nat) list" where
  "mozjs_parse_row_36 =
    [(mozjs_sym_export_statement, 422), (mozjs_sym_declaration, 422),
     (mozjs_sym_import, 1333), (mozjs_sym_import_statement, 422),
     (mozjs_sym_statement, 475), (mozjs_sym_expression_statement, 422),
     (mozjs_sym_variable_declaration, 427), (mozjs_sym_lexical_declaration, 427),
     (mozjs_sym_using_declaration, 427), (mozjs_sym_statement_block, 422),
     (mozjs_sym_if_statement, 422), (mozjs_sym_switch_statement, 422),
     (mozjs_sym_for_statement, 422), (mozjs_sym_for_in_statement, 422),
     (mozjs_sym_while_statement, 422), (mozjs_sym_do_statement, 422),
     (mozjs_sym_try_statement, 422), (mozjs_sym_with_statement, 422),
     (mozjs_sym_break_statement, 422), (mozjs_sym_continue_statement, 422),
     (mozjs_sym_debugger_statement, 422), (mozjs_sym_return_statement, 422),
     (mozjs_sym_throw_statement, 422), (mozjs_sym_empty_statement, 422),
     (mozjs_sym_labeled_statement, 422), (mozjs_sym_parenthesized_expression, 556),
     (mozjs_sym_expression, 823), (mozjs_sym_primary_expression, 693),
     (mozjs_sym_yield_expression, 743), (mozjs_sym_object, 793),
     (mozjs_sym_object_pattern, 1845), (mozjs_sym_array, 793),
     (mozjs_sym_array_pattern, 1845), (mozjs_sym_jsx_element, 743),
     (mozjs_sym_jsx_opening_element, 1158), (mozjs_sym_jsx_self_closing_element, 743),
     (mozjs_sym_class, 793), (mozjs_sym_class_declaration, 427),
     (mozjs_sym_function_expression, 793), (mozjs_sym_function_declaration, 427),
     (mozjs_sym_generator_function, 793), (mozjs_sym_generator_function_declaration, 427),
     (mozjs_sym_arrow_function, 793), (mozjs_sym_call_expression, 793),
     (mozjs_sym_new_expression, 692), (mozjs_sym_await_expression, 743),
     (mozjs_sym_member_expression, 556), (mozjs_sym_subscript_expression, 556),
     (mozjs_sym_assignment_expression, 743), (mozjs_sym__augmented_assignment_lhs, 1146),
     (mozjs_sym_augmented_assignment_expression, 743), (mozjs_sym__destructuring_pattern, 1845),
     (mozjs_sym_ternary_expression, 743), (mozjs_sym_binary_expression, 743),
     (mozjs_sym_unary_expression, 743), (mozjs_sym_update_expression, 743),
     (mozjs_sym_sequence_expression, 1743), (mozjs_sym_string, 793),
     (mozjs_sym_template_string, 793), (mozjs_sym_regex, 793),
     (mozjs_sym_meta_property, 793), (mozjs_sym_decorator, 1112),
     (mozjs_sym_formal_parameters, 1847), (mozjs_aux_sym_export_statement_repeat1, 1278),
     (mozjs_sym_identifier, 9), (mozjs_anon_sym_export, 13),
     (mozjs_anon_sym_LBRACE, 15), (mozjs_anon_sym_import, 17),
     (mozjs_anon_sym_with, 19), (mozjs_anon_sym_var, 21),
     (mozjs_anon_sym_let, 23), (mozjs_anon_sym_const, 25),
     (mozjs_anon_sym_using, 27), (mozjs_anon_sym_await, 29),
     (mozjs_anon_sym_if, 31), (mozjs_anon_sym_switch, 33),
     (mozjs_anon_sym_for, 35), (mozjs_anon_sym_LPAREN, 37),
     (mozjs_anon_sym_SEMI, 39), (mozjs_anon_sym_while, 41),
     (mozjs_anon_sym_do, 43), (mozjs_anon_sym_try, 45),
     (mozjs_anon_sym_break, 47), (mozjs_anon_sym_continue, 49),
     (mozjs_anon_sym_debugger, 51), (mozjs_anon_sym_return, 53),
     (mozjs_anon_sym_throw, 55), (mozjs_anon_sym_yield, 57),
     (mozjs_anon_sym_LBRACK, 59), (mozjs_anon_sym_LT, 61),
     (mozjs_anon_sym_DQUOTE, 63), (mozjs_anon_sym_SQUOTE, 65),
     (mozjs_anon_sym_class, 67), (mozjs_anon_sym_async, 69),
     (mozjs_anon_sym_function, 71), (mozjs_anon_sym_new, 73),
     (mozjs_anon_sym_PLUS, 75), (mozjs_anon_sym_DASH, 75),
     (mozjs_anon_sym_SLASH, 77), (mozjs_anon_sym_BANG, 79),
     (mozjs_anon_sym_TILDE, 79), (mozjs_anon_sym_typeof, 75),
     (mozjs_anon_sym_void, 75), (mozjs_anon_sym_delete, 75),
     (mozjs_anon_sym_PLUS_PLUS, 81), (mozjs_anon_sym_DASH_DASH, 81),
     (mozjs_sym_comment, 5), (mozjs_anon_sym_BQUOTE, 83),
     (mozjs_sym_number, 85), (mozjs_sym_private_property_identifier, 87),
     (mozjs_sym_this, 89), (mozjs_sym_super, 89),
     (mozjs_sym_true, 89), (mozjs_sym_false, 89),
     (mozjs_sym_null, 89), (mozjs_sym_undefined, 91),
     (mozjs_anon_sym_AT, 93), (mozjs_anon_sym_static, 95),
     (mozjs_anon_sym_get, 95), (mozjs_anon_sym_set, 95),
     (mozjs_sym_preproc, 97), (mozjs_sym_html_comment, 5)]"

definition mozjs_parse_row_37 :: "(TSSymbol \<times> nat) list" where
  "mozjs_parse_row_37 =
    [(mozjs_sym_export_statement, 422), (mozjs_sym_declaration, 422),
     (mozjs_sym_import, 1333), (mozjs_sym_import_statement, 422),
     (mozjs_sym_statement, 476), (mozjs_sym_expression_statement, 422),
     (mozjs_sym_variable_declaration, 427), (mozjs_sym_lexical_declaration, 427),
     (mozjs_sym_using_declaration, 427), (mozjs_sym_statement_block, 422),
     (mozjs_sym_if_statement, 422), (mozjs_sym_switch_statement, 422),
     (mozjs_sym_for_statement, 422), (mozjs_sym_for_in_statement, 422),
     (mozjs_sym_while_statement, 422), (mozjs_sym_do_statement, 422),
     (mozjs_sym_try_statement, 422), (mozjs_sym_with_statement, 422),
     (mozjs_sym_break_statement, 422), (mozjs_sym_continue_statement, 422),
     (mozjs_sym_debugger_statement, 422), (mozjs_sym_return_statement, 422),
     (mozjs_sym_throw_statement, 422), (mozjs_sym_empty_statement, 422),
     (mozjs_sym_labeled_statement, 422), (mozjs_sym_parenthesized_expression, 556),
     (mozjs_sym_expression, 823), (mozjs_sym_primary_expression, 693),
     (mozjs_sym_yield_expression, 743), (mozjs_sym_object, 793),
     (mozjs_sym_object_pattern, 1845), (mozjs_sym_array, 793),
     (mozjs_sym_array_pattern, 1845), (mozjs_sym_jsx_element, 743),
     (mozjs_sym_jsx_opening_element, 1158), (mozjs_sym_jsx_self_closing_element, 743),
     (mozjs_sym_class, 793), (mozjs_sym_class_declaration, 427),
     (mozjs_sym_function_expression, 793), (mozjs_sym_function_declaration, 427),
     (mozjs_sym_generator_function, 793), (mozjs_sym_generator_function_declaration, 427),
     (mozjs_sym_arrow_function, 793), (mozjs_sym_call_expression, 793),
     (mozjs_sym_new_expression, 692), (mozjs_sym_await_expression, 743),
     (mozjs_sym_member_expression, 556), (mozjs_sym_subscript_expression, 556),
     (mozjs_sym_assignment_expression, 743), (mozjs_sym__augmented_assignment_lhs, 1146),
     (mozjs_sym_augmented_assignment_expression, 743), (mozjs_sym__destructuring_pattern, 1845),
     (mozjs_sym_ternary_expression, 743), (mozjs_sym_binary_expression, 743),
     (mozjs_sym_unary_expression, 743), (mozjs_sym_update_expression, 743),
     (mozjs_sym_sequence_expression, 1743), (mozjs_sym_string, 793),
     (mozjs_sym_template_string, 793), (mozjs_sym_regex, 793),
     (mozjs_sym_meta_property, 793), (mozjs_sym_decorator, 1112),
     (mozjs_sym_formal_parameters, 1847), (mozjs_aux_sym_export_statement_repeat1, 1278),
     (mozjs_sym_identifier, 9), (mozjs_anon_sym_export, 13),
     (mozjs_anon_sym_LBRACE, 15), (mozjs_anon_sym_import, 17),
     (mozjs_anon_sym_with, 19), (mozjs_anon_sym_var, 21),
     (mozjs_anon_sym_let, 23), (mozjs_anon_sym_const, 25),
     (mozjs_anon_sym_using, 27), (mozjs_anon_sym_await, 29),
     (mozjs_anon_sym_if, 31), (mozjs_anon_sym_switch, 33),
     (mozjs_anon_sym_for, 35), (mozjs_anon_sym_LPAREN, 37),
     (mozjs_anon_sym_SEMI, 39), (mozjs_anon_sym_while, 41),
     (mozjs_anon_sym_do, 43), (mozjs_anon_sym_try, 45),
     (mozjs_anon_sym_break, 47), (mozjs_anon_sym_continue, 49),
     (mozjs_anon_sym_debugger, 51), (mozjs_anon_sym_return, 53),
     (mozjs_anon_sym_throw, 55), (mozjs_anon_sym_yield, 57),
     (mozjs_anon_sym_LBRACK, 59), (mozjs_anon_sym_LT, 61),
     (mozjs_anon_sym_DQUOTE, 63), (mozjs_anon_sym_SQUOTE, 65),
     (mozjs_anon_sym_class, 67), (mozjs_anon_sym_async, 69),
     (mozjs_anon_sym_function, 71), (mozjs_anon_sym_new, 73),
     (mozjs_anon_sym_PLUS, 75), (mozjs_anon_sym_DASH, 75),
     (mozjs_anon_sym_SLASH, 77), (mozjs_anon_sym_BANG, 79),
     (mozjs_anon_sym_TILDE, 79), (mozjs_anon_sym_typeof, 75),
     (mozjs_anon_sym_void, 75), (mozjs_anon_sym_delete, 75),
     (mozjs_anon_sym_PLUS_PLUS, 81), (mozjs_anon_sym_DASH_DASH, 81),
     (mozjs_sym_comment, 5), (mozjs_anon_sym_BQUOTE, 83),
     (mozjs_sym_number, 85), (mozjs_sym_private_property_identifier, 87),
     (mozjs_sym_this, 89), (mozjs_sym_super, 89),
     (mozjs_sym_true, 89), (mozjs_sym_false, 89),
     (mozjs_sym_null, 89), (mozjs_sym_undefined, 91),
     (mozjs_anon_sym_AT, 93), (mozjs_anon_sym_static, 95),
     (mozjs_anon_sym_get, 95), (mozjs_anon_sym_set, 95),
     (mozjs_sym_preproc, 97), (mozjs_sym_html_comment, 5)]"

definition mozjs_parse_row_38 :: "(TSSymbol \<times> nat) list" where
  "mozjs_parse_row_38 =
    [(mozjs_sym_export_statement, 422), (mozjs_sym_declaration, 422),
     (mozjs_sym_import, 1333), (mozjs_sym_import_statement, 422),
     (mozjs_sym_statement, 477), (mozjs_sym_expression_statement, 422),
     (mozjs_sym_variable_declaration, 427), (mozjs_sym_lexical_declaration, 427),
     (mozjs_sym_using_declaration, 427), (mozjs_sym_statement_block, 422),
     (mozjs_sym_if_statement, 422), (mozjs_sym_switch_statement, 422),
     (mozjs_sym_for_statement, 422), (mozjs_sym_for_in_statement, 422),
     (mozjs_sym_while_statement, 422), (mozjs_sym_do_statement, 422),
     (mozjs_sym_try_statement, 422), (mozjs_sym_with_statement, 422),
     (mozjs_sym_break_statement, 422), (mozjs_sym_continue_statement, 422),
     (mozjs_sym_debugger_statement, 422), (mozjs_sym_return_statement, 422),
     (mozjs_sym_throw_statement, 422), (mozjs_sym_empty_statement, 422),
     (mozjs_sym_labeled_statement, 422), (mozjs_sym_parenthesized_expression, 556),
     (mozjs_sym_expression, 823), (mozjs_sym_primary_expression, 693),
     (mozjs_sym_yield_expression, 743), (mozjs_sym_object, 793),
     (mozjs_sym_object_pattern, 1845), (mozjs_sym_array, 793),
     (mozjs_sym_array_pattern, 1845), (mozjs_sym_jsx_element, 743),
     (mozjs_sym_jsx_opening_element, 1158), (mozjs_sym_jsx_self_closing_element, 743),
     (mozjs_sym_class, 793), (mozjs_sym_class_declaration, 427),
     (mozjs_sym_function_expression, 793), (mozjs_sym_function_declaration, 427),
     (mozjs_sym_generator_function, 793), (mozjs_sym_generator_function_declaration, 427),
     (mozjs_sym_arrow_function, 793), (mozjs_sym_call_expression, 793),
     (mozjs_sym_new_expression, 692), (mozjs_sym_await_expression, 743),
     (mozjs_sym_member_expression, 556), (mozjs_sym_subscript_expression, 556),
     (mozjs_sym_assignment_expression, 743), (mozjs_sym__augmented_assignment_lhs, 1146),
     (mozjs_sym_augmented_assignment_expression, 743), (mozjs_sym__destructuring_pattern, 1845),
     (mozjs_sym_ternary_expression, 743), (mozjs_sym_binary_expression, 743),
     (mozjs_sym_unary_expression, 743), (mozjs_sym_update_expression, 743),
     (mozjs_sym_sequence_expression, 1743), (mozjs_sym_string, 793),
     (mozjs_sym_template_string, 793), (mozjs_sym_regex, 793),
     (mozjs_sym_meta_property, 793), (mozjs_sym_decorator, 1112),
     (mozjs_sym_formal_parameters, 1847), (mozjs_aux_sym_export_statement_repeat1, 1278),
     (mozjs_sym_identifier, 9), (mozjs_anon_sym_export, 13),
     (mozjs_anon_sym_LBRACE, 15), (mozjs_anon_sym_import, 17),
     (mozjs_anon_sym_with, 19), (mozjs_anon_sym_var, 21),
     (mozjs_anon_sym_let, 23), (mozjs_anon_sym_const, 25),
     (mozjs_anon_sym_using, 27), (mozjs_anon_sym_await, 29),
     (mozjs_anon_sym_if, 31), (mozjs_anon_sym_switch, 33),
     (mozjs_anon_sym_for, 35), (mozjs_anon_sym_LPAREN, 37),
     (mozjs_anon_sym_SEMI, 39), (mozjs_anon_sym_while, 41),
     (mozjs_anon_sym_do, 43), (mozjs_anon_sym_try, 45),
     (mozjs_anon_sym_break, 47), (mozjs_anon_sym_continue, 49),
     (mozjs_anon_sym_debugger, 51), (mozjs_anon_sym_return, 53),
     (mozjs_anon_sym_throw, 55), (mozjs_anon_sym_yield, 57),
     (mozjs_anon_sym_LBRACK, 59), (mozjs_anon_sym_LT, 61),
     (mozjs_anon_sym_DQUOTE, 63), (mozjs_anon_sym_SQUOTE, 65),
     (mozjs_anon_sym_class, 67), (mozjs_anon_sym_async, 69),
     (mozjs_anon_sym_function, 71), (mozjs_anon_sym_new, 73),
     (mozjs_anon_sym_PLUS, 75), (mozjs_anon_sym_DASH, 75),
     (mozjs_anon_sym_SLASH, 77), (mozjs_anon_sym_BANG, 79),
     (mozjs_anon_sym_TILDE, 79), (mozjs_anon_sym_typeof, 75),
     (mozjs_anon_sym_void, 75), (mozjs_anon_sym_delete, 75),
     (mozjs_anon_sym_PLUS_PLUS, 81), (mozjs_anon_sym_DASH_DASH, 81),
     (mozjs_sym_comment, 5), (mozjs_anon_sym_BQUOTE, 83),
     (mozjs_sym_number, 85), (mozjs_sym_private_property_identifier, 87),
     (mozjs_sym_this, 89), (mozjs_sym_super, 89),
     (mozjs_sym_true, 89), (mozjs_sym_false, 89),
     (mozjs_sym_null, 89), (mozjs_sym_undefined, 91),
     (mozjs_anon_sym_AT, 93), (mozjs_anon_sym_static, 95),
     (mozjs_anon_sym_get, 95), (mozjs_anon_sym_set, 95),
     (mozjs_sym_preproc, 97), (mozjs_sym_html_comment, 5)]"

definition mozjs_parse_row_39 :: "(TSSymbol \<times> nat) list" where
  "mozjs_parse_row_39 =
    [(mozjs_sym_export_statement, 422), (mozjs_sym_declaration, 422),
     (mozjs_sym_import, 1333), (mozjs_sym_import_statement, 422),
     (mozjs_sym_statement, 479), (mozjs_sym_expression_statement, 422),
     (mozjs_sym_variable_declaration, 427), (mozjs_sym_lexical_declaration, 427),
     (mozjs_sym_using_declaration, 427), (mozjs_sym_statement_block, 422),
     (mozjs_sym_if_statement, 422), (mozjs_sym_switch_statement, 422),
     (mozjs_sym_for_statement, 422), (mozjs_sym_for_in_statement, 422),
     (mozjs_sym_while_statement, 422), (mozjs_sym_do_statement, 422),
     (mozjs_sym_try_statement, 422), (mozjs_sym_with_statement, 422),
     (mozjs_sym_break_statement, 422), (mozjs_sym_continue_statement, 422),
     (mozjs_sym_debugger_statement, 422), (mozjs_sym_return_statement, 422),
     (mozjs_sym_throw_statement, 422), (mozjs_sym_empty_statement, 422),
     (mozjs_sym_labeled_statement, 422), (mozjs_sym_parenthesized_expression, 556),
     (mozjs_sym_expression, 823), (mozjs_sym_primary_expression, 693),
     (mozjs_sym_yield_expression, 743), (mozjs_sym_object, 793),
     (mozjs_sym_object_pattern, 1845), (mozjs_sym_array, 793),
     (mozjs_sym_array_pattern, 1845), (mozjs_sym_jsx_element, 743),
     (mozjs_sym_jsx_opening_element, 1158), (mozjs_sym_jsx_self_closing_element, 743),
     (mozjs_sym_class, 793), (mozjs_sym_class_declaration, 427),
     (mozjs_sym_function_expression, 793), (mozjs_sym_function_declaration, 427),
     (mozjs_sym_generator_function, 793), (mozjs_sym_generator_function_declaration, 427),
     (mozjs_sym_arrow_function, 793), (mozjs_sym_call_expression, 793),
     (mozjs_sym_new_expression, 692), (mozjs_sym_await_expression, 743),
     (mozjs_sym_member_expression, 556), (mozjs_sym_subscript_expression, 556),
     (mozjs_sym_assignment_expression, 743), (mozjs_sym__augmented_assignment_lhs, 1146),
     (mozjs_sym_augmented_assignment_expression, 743), (mozjs_sym__destructuring_pattern, 1845),
     (mozjs_sym_ternary_expression, 743), (mozjs_sym_binary_expression, 743),
     (mozjs_sym_unary_expression, 743), (mozjs_sym_update_expression, 743),
     (mozjs_sym_sequence_expression, 1743), (mozjs_sym_string, 793),
     (mozjs_sym_template_string, 793), (mozjs_sym_regex, 793),
     (mozjs_sym_meta_property, 793), (mozjs_sym_decorator, 1112),
     (mozjs_sym_formal_parameters, 1847), (mozjs_aux_sym_export_statement_repeat1, 1278),
     (mozjs_sym_identifier, 9), (mozjs_anon_sym_export, 13),
     (mozjs_anon_sym_LBRACE, 15), (mozjs_anon_sym_import, 17),
     (mozjs_anon_sym_with, 19), (mozjs_anon_sym_var, 21),
     (mozjs_anon_sym_let, 23), (mozjs_anon_sym_const, 25),
     (mozjs_anon_sym_using, 27), (mozjs_anon_sym_await, 29),
     (mozjs_anon_sym_if, 31), (mozjs_anon_sym_switch, 33),
     (mozjs_anon_sym_for, 35), (mozjs_anon_sym_LPAREN, 37),
     (mozjs_anon_sym_SEMI, 39), (mozjs_anon_sym_while, 41),
     (mozjs_anon_sym_do, 43), (mozjs_anon_sym_try, 45),
     (mozjs_anon_sym_break, 47), (mozjs_anon_sym_continue, 49),
     (mozjs_anon_sym_debugger, 51), (mozjs_anon_sym_return, 53),
     (mozjs_anon_sym_throw, 55), (mozjs_anon_sym_yield, 57),
     (mozjs_anon_sym_LBRACK, 59), (mozjs_anon_sym_LT, 61),
     (mozjs_anon_sym_DQUOTE, 63), (mozjs_anon_sym_SQUOTE, 65),
     (mozjs_anon_sym_class, 67), (mozjs_anon_sym_async, 69),
     (mozjs_anon_sym_function, 71), (mozjs_anon_sym_new, 73),
     (mozjs_anon_sym_PLUS, 75), (mozjs_anon_sym_DASH, 75),
     (mozjs_anon_sym_SLASH, 77), (mozjs_anon_sym_BANG, 79),
     (mozjs_anon_sym_TILDE, 79), (mozjs_anon_sym_typeof, 75),
     (mozjs_anon_sym_void, 75), (mozjs_anon_sym_delete, 75),
     (mozjs_anon_sym_PLUS_PLUS, 81), (mozjs_anon_sym_DASH_DASH, 81),
     (mozjs_sym_comment, 5), (mozjs_anon_sym_BQUOTE, 83),
     (mozjs_sym_number, 85), (mozjs_sym_private_property_identifier, 87),
     (mozjs_sym_this, 89), (mozjs_sym_super, 89),
     (mozjs_sym_true, 89), (mozjs_sym_false, 89),
     (mozjs_sym_null, 89), (mozjs_sym_undefined, 91),
     (mozjs_anon_sym_AT, 93), (mozjs_anon_sym_static, 95),
     (mozjs_anon_sym_get, 95), (mozjs_anon_sym_set, 95),
     (mozjs_sym_preproc, 97), (mozjs_sym_html_comment, 5)]"

definition mozjs_parse_row_40 :: "(TSSymbol \<times> nat) list" where
  "mozjs_parse_row_40 =
    [(mozjs_sym_import, 1340), (mozjs_sym_parenthesized_expression, 499),
     (mozjs_sym_expression, 586), (mozjs_sym_primary_expression, 584),
     (mozjs_sym_yield_expression, 638), (mozjs_sym_object, 645),
     (mozjs_sym_object_pattern, 1766), (mozjs_sym_array, 645),
     (mozjs_sym_array_pattern, 1766), (mozjs_sym_jsx_element, 638),
     (mozjs_sym_jsx_opening_element, 1152), (mozjs_sym_jsx_self_closing_element, 638),
     (mozjs_sym_class, 645), (mozjs_sym_function_expression, 645),
     (mozjs_sym_generator_function, 645), (mozjs_sym_arrow_function, 645),
     (mozjs_sym_call_expression, 645), (mozjs_sym_new_expression, 587),
     (mozjs_sym_await_expression, 638), (mozjs_sym_member_expression, 499),
     (mozjs_sym_subscript_expression, 499), (mozjs_sym_assignment_expression, 638),
     (mozjs_sym__augmented_assignment_lhs, 1144), (mozjs_sym_augmented_assignment_expression,
       638),
     (mozjs_sym__destructuring_pattern, 1766), (mozjs_sym_ternary_expression, 638),
     (mozjs_sym_binary_expression, 638), (mozjs_sym_unary_expression, 638),
     (mozjs_sym_update_expression, 638), (mozjs_sym_string, 645),
     (mozjs_sym_template_string, 645), (mozjs_sym_regex, 645),
     (mozjs_sym_meta_property, 645), (mozjs_sym_decorator, 1112),
     (mozjs_sym_formal_parameters, 1828), (mozjs_aux_sym_export_statement_repeat1, 1395),
     (mozjs_sym_identifier, 461), (mozjs_anon_sym_export, 463),
     (mozjs_anon_sym_STAR, 307), (mozjs_anon_sym_LBRACE, 465),
     (mozjs_anon_sym_COMMA, 311), (mozjs_anon_sym_RBRACE, 311),
     (mozjs_anon_sym_import, 390), (mozjs_anon_sym_let, 463),
     (mozjs_anon_sym_await, 467), (mozjs_anon_sym_LPAREN, 394),
     (mozjs_anon_sym_SEMI, 311), (mozjs_anon_sym_in, 307),
     (mozjs_anon_sym_yield, 469), (mozjs_anon_sym_EQ, 471),
     (mozjs_anon_sym_LBRACK, 473), (mozjs_anon_sym_LT, 404),
     (mozjs_anon_sym_GT, 307), (mozjs_anon_sym_DOT, 307),
     (mozjs_anon_sym_DQUOTE, 407), (mozjs_anon_sym_SQUOTE, 409),
     (mozjs_anon_sym_class, 411), (mozjs_anon_sym_async, 476),
     (mozjs_anon_sym_function, 415), (mozjs_anon_sym_EQ_GT, 342),
     (mozjs_sym_optional_chain, 311), (mozjs_anon_sym_new, 478),
     (mozjs_anon_sym_PLUS_EQ, 344), (mozjs_anon_sym_DASH_EQ, 344),
     (mozjs_anon_sym_STAR_EQ, 344), (mozjs_anon_sym_SLASH_EQ, 344),
     (mozjs_anon_sym_PERCENT_EQ, 344), (mozjs_anon_sym_CARET_EQ, 344),
     (mozjs_anon_sym_AMP_EQ, 344), (mozjs_anon_sym_PIPE_EQ, 344),
     (mozjs_anon_sym_GT_GT_EQ, 344), (mozjs_anon_sym_GT_GT_GT_EQ, 344),
     (mozjs_anon_sym_LT_LT_EQ, 344), (mozjs_anon_sym_STAR_STAR_EQ, 344),
     (mozjs_anon_sym_AMP_AMP_EQ, 344), (mozjs_anon_sym_PIPE_PIPE_EQ, 344),
     (mozjs_anon_sym_QMARK_QMARK_EQ, 344), (mozjs_anon_sym_AMP_AMP, 307),
     (mozjs_anon_sym_PIPE_PIPE, 307), (mozjs_anon_sym_GT_GT, 307),
     (mozjs_anon_sym_GT_GT_GT, 307), (mozjs_anon_sym_LT_LT, 307),
     (mozjs_anon_sym_AMP, 307), (mozjs_anon_sym_CARET, 307),
     (mozjs_anon_sym_PIPE, 307), (mozjs_anon_sym_PLUS, 480),
     (mozjs_anon_sym_DASH, 480), (mozjs_anon_sym_SLASH, 424),
     (mozjs_anon_sym_PERCENT, 307), (mozjs_anon_sym_STAR_STAR, 307),
     (mozjs_anon_sym_LT_EQ, 311), (mozjs_anon_sym_EQ_EQ, 307),
     (mozjs_anon_sym_EQ_EQ_EQ, 311), (mozjs_anon_sym_BANG_EQ, 307),
     (mozjs_anon_sym_BANG_EQ_EQ, 311), (mozjs_anon_sym_GT_EQ, 311),
     (mozjs_anon_sym_QMARK_QMARK, 307), (mozjs_anon_sym_instanceof, 307),
     (mozjs_anon_sym_BANG, 483), (mozjs_anon_sym_TILDE, 485),
     (mozjs_anon_sym_typeof, 483), (mozjs_anon_sym_void, 483),
     (mozjs_anon_sym_delete, 483), (mozjs_anon_sym_PLUS_PLUS, 487),
     (mozjs_anon_sym_DASH_DASH, 487), (mozjs_sym_comment, 5),
     (mozjs_anon_sym_BQUOTE, 434), (mozjs_sym_number, 437),
     (mozjs_sym_private_property_identifier, 490), (mozjs_sym_this, 441),
     (mozjs_sym_super, 441), (mozjs_sym_true, 441),
     (mozjs_sym_false, 441), (mozjs_sym_null, 441),
     (mozjs_sym_undefined, 492), (mozjs_anon_sym_AT, 93),
     (mozjs_anon_sym_static, 463), (mozjs_anon_sym_get, 463),
     (mozjs_anon_sym_set, 463), (mozjs_sym__automatic_semicolon, 311),
     (mozjs_sym__ternary_qmark, 311), (mozjs_sym_html_comment, 5)]"

definition mozjs_parse_row_41 :: "(TSSymbol \<times> nat) list" where
  "mozjs_parse_row_41 =
    [(mozjs_sym_import, 1340), (mozjs_sym_parenthesized_expression, 499),
     (mozjs_sym_expression, 586), (mozjs_sym_primary_expression, 584),
     (mozjs_sym_yield_expression, 638), (mozjs_sym_object, 645),
     (mozjs_sym_object_pattern, 1766), (mozjs_sym_array, 645),
     (mozjs_sym_array_pattern, 1766), (mozjs_sym_jsx_element, 638),
     (mozjs_sym_jsx_opening_element, 1152), (mozjs_sym_jsx_self_closing_element, 638),
     (mozjs_sym_class, 645), (mozjs_sym_function_expression, 645),
     (mozjs_sym_generator_function, 645), (mozjs_sym_arrow_function, 645),
     (mozjs_sym_call_expression, 645), (mozjs_sym_new_expression, 587),
     (mozjs_sym_await_expression, 638), (mozjs_sym_member_expression, 499),
     (mozjs_sym_subscript_expression, 499), (mozjs_sym_assignment_expression, 638),
     (mozjs_sym__augmented_assignment_lhs, 1144), (mozjs_sym_augmented_assignment_expression,
       638),
     (mozjs_sym__destructuring_pattern, 1766), (mozjs_sym_ternary_expression, 638),
     (mozjs_sym_binary_expression, 638), (mozjs_sym_unary_expression, 638),
     (mozjs_sym_update_expression, 638), (mozjs_sym_string, 645),
     (mozjs_sym_template_string, 645), (mozjs_sym_regex, 645),
     (mozjs_sym_meta_property, 645), (mozjs_sym_decorator, 1112),
     (mozjs_sym_formal_parameters, 1828), (mozjs_aux_sym_export_statement_repeat1, 1395),
     (mozjs_sym_identifier, 461), (mozjs_anon_sym_export, 463),
     (mozjs_anon_sym_STAR, 307), (mozjs_anon_sym_LBRACE, 465),
     (mozjs_anon_sym_COMMA, 529), (mozjs_anon_sym_RBRACE, 529),
     (mozjs_anon_sym_import, 390), (mozjs_anon_sym_let, 463),
     (mozjs_anon_sym_await, 467), (mozjs_anon_sym_LPAREN, 394),
     (mozjs_anon_sym_RPAREN, 529), (mozjs_anon_sym_in, 307),
     (mozjs_anon_sym_yield, 469), (mozjs_anon_sym_EQ, 531),
     (mozjs_anon_sym_LBRACK, 473), (mozjs_anon_sym_RBRACK, 529),
     (mozjs_anon_sym_LT, 404), (mozjs_anon_sym_GT, 307),
     (mozjs_anon_sym_DOT, 307), (mozjs_anon_sym_DQUOTE, 407),
     (mozjs_anon_sym_SQUOTE, 409), (mozjs_anon_sym_class, 411),
     (mozjs_anon_sym_async, 476), (mozjs_anon_sym_function, 415),
     (mozjs_anon_sym_EQ_GT, 534), (mozjs_sym_optional_chain, 311),
     (mozjs_anon_sym_new, 478), (mozjs_anon_sym_PLUS_EQ, 344),
     (mozjs_anon_sym_DASH_EQ, 344), (mozjs_anon_sym_STAR_EQ, 344),
     (mozjs_anon_sym_SLASH_EQ, 344), (mozjs_anon_sym_PERCENT_EQ, 344),
     (mozjs_anon_sym_CARET_EQ, 344), (mozjs_anon_sym_AMP_EQ, 344),
     (mozjs_anon_sym_PIPE_EQ, 344), (mozjs_anon_sym_GT_GT_EQ, 344),
     (mozjs_anon_sym_GT_GT_GT_EQ, 344), (mozjs_anon_sym_LT_LT_EQ, 344),
     (mozjs_anon_sym_STAR_STAR_EQ, 344), (mozjs_anon_sym_AMP_AMP_EQ, 344),
     (mozjs_anon_sym_PIPE_PIPE_EQ, 344), (mozjs_anon_sym_QMARK_QMARK_EQ, 344),
     (mozjs_anon_sym_AMP_AMP, 307), (mozjs_anon_sym_PIPE_PIPE, 307),
     (mozjs_anon_sym_GT_GT, 307), (mozjs_anon_sym_GT_GT_GT, 307),
     (mozjs_anon_sym_LT_LT, 307), (mozjs_anon_sym_AMP, 307),
     (mozjs_anon_sym_CARET, 307), (mozjs_anon_sym_PIPE, 307),
     (mozjs_anon_sym_PLUS, 480), (mozjs_anon_sym_DASH, 480),
     (mozjs_anon_sym_SLASH, 424), (mozjs_anon_sym_PERCENT, 307),
     (mozjs_anon_sym_STAR_STAR, 307), (mozjs_anon_sym_LT_EQ, 311),
     (mozjs_anon_sym_EQ_EQ, 307), (mozjs_anon_sym_EQ_EQ_EQ, 311),
     (mozjs_anon_sym_BANG_EQ, 307), (mozjs_anon_sym_BANG_EQ_EQ, 311),
     (mozjs_anon_sym_GT_EQ, 311), (mozjs_anon_sym_QMARK_QMARK, 307),
     (mozjs_anon_sym_instanceof, 307), (mozjs_anon_sym_BANG, 483),
     (mozjs_anon_sym_TILDE, 485), (mozjs_anon_sym_typeof, 483),
     (mozjs_anon_sym_void, 483), (mozjs_anon_sym_delete, 483),
     (mozjs_anon_sym_PLUS_PLUS, 487), (mozjs_anon_sym_DASH_DASH, 487),
     (mozjs_sym_comment, 5), (mozjs_anon_sym_BQUOTE, 434),
     (mozjs_sym_number, 437), (mozjs_sym_private_property_identifier, 490),
     (mozjs_sym_this, 441), (mozjs_sym_super, 441),
     (mozjs_sym_true, 441), (mozjs_sym_false, 441),
     (mozjs_sym_null, 441), (mozjs_sym_undefined, 492),
     (mozjs_anon_sym_AT, 93), (mozjs_anon_sym_static, 463),
     (mozjs_anon_sym_get, 463), (mozjs_anon_sym_set, 463),
     (mozjs_sym__ternary_qmark, 311), (mozjs_sym_html_comment, 5)]"

definition mozjs_parse_row_42 :: "(TSSymbol \<times> nat) list" where
  "mozjs_parse_row_42 =
    [(mozjs_sym_import, 1340), (mozjs_sym_parenthesized_expression, 499),
     (mozjs_sym_expression, 586), (mozjs_sym_primary_expression, 584),
     (mozjs_sym_yield_expression, 638), (mozjs_sym_object, 645),
     (mozjs_sym_object_pattern, 1766), (mozjs_sym_array, 645),
     (mozjs_sym_array_pattern, 1766), (mozjs_sym_jsx_element, 638),
     (mozjs_sym_jsx_opening_element, 1152), (mozjs_sym_jsx_self_closing_element, 638),
     (mozjs_sym_class, 645), (mozjs_sym_function_expression, 645),
     (mozjs_sym_generator_function, 645), (mozjs_sym_arrow_function, 645),
     (mozjs_sym_call_expression, 645), (mozjs_sym_new_expression, 587),
     (mozjs_sym_await_expression, 638), (mozjs_sym_member_expression, 499),
     (mozjs_sym_subscript_expression, 499), (mozjs_sym_assignment_expression, 638),
     (mozjs_sym__augmented_assignment_lhs, 1144), (mozjs_sym_augmented_assignment_expression,
       638),
     (mozjs_sym__destructuring_pattern, 1766), (mozjs_sym_ternary_expression, 638),
     (mozjs_sym_binary_expression, 638), (mozjs_sym_unary_expression, 638),
     (mozjs_sym_update_expression, 638), (mozjs_sym_string, 645),
     (mozjs_sym_template_string, 645), (mozjs_sym_regex, 645),
     (mozjs_sym_meta_property, 645), (mozjs_sym_decorator, 1112),
     (mozjs_sym_formal_parameters, 1828), (mozjs_aux_sym_export_statement_repeat1, 1395),
     (mozjs_sym_identifier, 461), (mozjs_anon_sym_export, 463),
     (mozjs_anon_sym_STAR, 307), (mozjs_anon_sym_LBRACE, 465),
     (mozjs_anon_sym_COMMA, 536), (mozjs_anon_sym_RBRACE, 536),
     (mozjs_anon_sym_import, 390), (mozjs_anon_sym_let, 463),
     (mozjs_anon_sym_await, 467), (mozjs_anon_sym_LPAREN, 394),
     (mozjs_anon_sym_RPAREN, 536), (mozjs_anon_sym_in, 307),
     (mozjs_anon_sym_yield, 469), (mozjs_anon_sym_EQ, 471),
     (mozjs_anon_sym_LBRACK, 473), (mozjs_anon_sym_RBRACK, 536),
     (mozjs_anon_sym_LT, 404), (mozjs_anon_sym_GT, 307),
     (mozjs_anon_sym_DOT, 307), (mozjs_anon_sym_DQUOTE, 407),
     (mozjs_anon_sym_SQUOTE, 409), (mozjs_anon_sym_class, 411),
     (mozjs_anon_sym_async, 476), (mozjs_anon_sym_function, 415),
     (mozjs_anon_sym_EQ_GT, 534), (mozjs_sym_optional_chain, 311),
     (mozjs_anon_sym_new, 478), (mozjs_anon_sym_PLUS_EQ, 344),
     (mozjs_anon_sym_DASH_EQ, 344), (mozjs_anon_sym_STAR_EQ, 344),
     (mozjs_anon_sym_SLASH_EQ, 344), (mozjs_anon_sym_PERCENT_EQ, 344),
     (mozjs_anon_sym_CARET_EQ, 344), (mozjs_anon_sym_AMP_EQ, 344),
     (mozjs_anon_sym_PIPE_EQ, 344), (mozjs_anon_sym_GT_GT_EQ, 344),
     (mozjs_anon_sym_GT_GT_GT_EQ, 344), (mozjs_anon_sym_LT_LT_EQ, 344),
     (mozjs_anon_sym_STAR_STAR_EQ, 344), (mozjs_anon_sym_AMP_AMP_EQ, 344),
     (mozjs_anon_sym_PIPE_PIPE_EQ, 344), (mozjs_anon_sym_QMARK_QMARK_EQ, 344),
     (mozjs_anon_sym_AMP_AMP, 307), (mozjs_anon_sym_PIPE_PIPE, 307),
     (mozjs_anon_sym_GT_GT, 307), (mozjs_anon_sym_GT_GT_GT, 307),
     (mozjs_anon_sym_LT_LT, 307), (mozjs_anon_sym_AMP, 307),
     (mozjs_anon_sym_CARET, 307), (mozjs_anon_sym_PIPE, 307),
     (mozjs_anon_sym_PLUS, 480), (mozjs_anon_sym_DASH, 480),
     (mozjs_anon_sym_SLASH, 424), (mozjs_anon_sym_PERCENT, 307),
     (mozjs_anon_sym_STAR_STAR, 307), (mozjs_anon_sym_LT_EQ, 311),
     (mozjs_anon_sym_EQ_EQ, 307), (mozjs_anon_sym_EQ_EQ_EQ, 311),
     (mozjs_anon_sym_BANG_EQ, 307), (mozjs_anon_sym_BANG_EQ_EQ, 311),
     (mozjs_anon_sym_GT_EQ, 311), (mozjs_anon_sym_QMARK_QMARK, 307),
     (mozjs_anon_sym_instanceof, 307), (mozjs_anon_sym_BANG, 483),
     (mozjs_anon_sym_TILDE, 485), (mozjs_anon_sym_typeof, 483),
     (mozjs_anon_sym_void, 483), (mozjs_anon_sym_delete, 483),
     (mozjs_anon_sym_PLUS_PLUS, 487), (mozjs_anon_sym_DASH_DASH, 487),
     (mozjs_sym_comment, 5), (mozjs_anon_sym_BQUOTE, 434),
     (mozjs_sym_number, 437), (mozjs_sym_private_property_identifier, 490),
     (mozjs_sym_this, 441), (mozjs_sym_super, 441),
     (mozjs_sym_true, 441), (mozjs_sym_false, 441),
     (mozjs_sym_null, 441), (mozjs_sym_undefined, 492),
     (mozjs_anon_sym_AT, 93), (mozjs_anon_sym_static, 463),
     (mozjs_anon_sym_get, 463), (mozjs_anon_sym_set, 463),
     (mozjs_sym__ternary_qmark, 311), (mozjs_sym_html_comment, 5)]"

definition mozjs_parse_row_43 :: "(TSSymbol \<times> nat) list" where
  "mozjs_parse_row_43 =
    [(mozjs_sym_import, 1333), (mozjs_sym_parenthesized_expression, 556),
     (mozjs_sym_expression, 698), (mozjs_sym_primary_expression, 693),
     (mozjs_sym_yield_expression, 743), (mozjs_sym_object, 793),
     (mozjs_sym_object_pattern, 1845), (mozjs_sym_array, 793),
     (mozjs_sym_array_pattern, 1845), (mozjs_sym_jsx_element, 743),
     (mozjs_sym_jsx_opening_element, 1158), (mozjs_sym_jsx_self_closing_element, 743),
     (mozjs_sym_class, 793), (mozjs_sym_function_expression, 793),
     (mozjs_sym_generator_function, 793), (mozjs_sym_arrow_function, 793),
     (mozjs_sym_call_expression, 793), (mozjs_sym_new_expression, 692),
     (mozjs_sym_await_expression, 743), (mozjs_sym_member_expression, 556),
     (mozjs_sym_subscript_expression, 556), (mozjs_sym_assignment_expression, 743),
     (mozjs_sym__augmented_assignment_lhs, 1146), (mozjs_sym_augmented_assignment_expression,
       743),
     (mozjs_sym__destructuring_pattern, 1845), (mozjs_sym_ternary_expression, 743),
     (mozjs_sym_binary_expression, 743), (mozjs_sym_unary_expression, 743),
     (mozjs_sym_update_expression, 743), (mozjs_sym_string, 793),
     (mozjs_sym_template_string, 793), (mozjs_sym_regex, 793),
     (mozjs_sym_meta_property, 793), (mozjs_sym_decorator, 1112),
     (mozjs_sym_formal_parameters, 1847), (mozjs_aux_sym_export_statement_repeat1, 1331),
     (mozjs_sym_identifier, 303), (mozjs_anon_sym_export, 305),
     (mozjs_anon_sym_STAR, 307), (mozjs_anon_sym_LBRACE, 309),
     (mozjs_anon_sym_COMMA, 311), (mozjs_anon_sym_RBRACE, 311),
     (mozjs_anon_sym_import, 315), (mozjs_anon_sym_let, 305),
     (mozjs_anon_sym_await, 319), (mozjs_anon_sym_LPAREN, 494),
     (mozjs_anon_sym_SEMI, 311), (mozjs_anon_sym_in, 307),
     (mozjs_anon_sym_yield, 57), (mozjs_anon_sym_EQ, 499),
     (mozjs_anon_sym_LBRACK, 330), (mozjs_anon_sym_LT, 333),
     (mozjs_anon_sym_GT, 307), (mozjs_anon_sym_DOT, 307),
     (mozjs_anon_sym_DQUOTE, 63), (mozjs_anon_sym_SQUOTE, 65),
     (mozjs_anon_sym_class, 336), (mozjs_anon_sym_async, 338),
     (mozjs_anon_sym_function, 340), (mozjs_anon_sym_EQ_GT, 342),
     (mozjs_sym_optional_chain, 311), (mozjs_anon_sym_new, 73),
     (mozjs_anon_sym_PLUS_EQ, 344), (mozjs_anon_sym_DASH_EQ, 344),
     (mozjs_anon_sym_STAR_EQ, 344), (mozjs_anon_sym_SLASH_EQ, 344),
     (mozjs_anon_sym_PERCENT_EQ, 344), (mozjs_anon_sym_CARET_EQ, 344),
     (mozjs_anon_sym_AMP_EQ, 344), (mozjs_anon_sym_PIPE_EQ, 344),
     (mozjs_anon_sym_GT_GT_EQ, 344), (mozjs_anon_sym_GT_GT_GT_EQ, 344),
     (mozjs_anon_sym_LT_LT_EQ, 344), (mozjs_anon_sym_STAR_STAR_EQ, 344),
     (mozjs_anon_sym_AMP_AMP_EQ, 344), (mozjs_anon_sym_PIPE_PIPE_EQ, 344),
     (mozjs_anon_sym_QMARK_QMARK_EQ, 344), (mozjs_anon_sym_AMP_AMP, 307),
     (mozjs_anon_sym_PIPE_PIPE, 307), (mozjs_anon_sym_GT_GT, 307),
     (mozjs_anon_sym_GT_GT_GT, 307), (mozjs_anon_sym_LT_LT, 307),
     (mozjs_anon_sym_AMP, 307), (mozjs_anon_sym_CARET, 307),
     (mozjs_anon_sym_PIPE, 307), (mozjs_anon_sym_PLUS, 346),
     (mozjs_anon_sym_DASH, 346), (mozjs_anon_sym_SLASH, 349),
     (mozjs_anon_sym_PERCENT, 307), (mozjs_anon_sym_STAR_STAR, 307),
     (mozjs_anon_sym_LT_EQ, 311), (mozjs_anon_sym_EQ_EQ, 307),
     (mozjs_anon_sym_EQ_EQ_EQ, 311), (mozjs_anon_sym_BANG_EQ, 307),
     (mozjs_anon_sym_BANG_EQ_EQ, 311), (mozjs_anon_sym_GT_EQ, 311),
     (mozjs_anon_sym_QMARK_QMARK, 307), (mozjs_anon_sym_instanceof, 307),
     (mozjs_anon_sym_BANG, 75), (mozjs_anon_sym_TILDE, 79),
     (mozjs_anon_sym_typeof, 75), (mozjs_anon_sym_void, 75),
     (mozjs_anon_sym_delete, 75), (mozjs_anon_sym_PLUS_PLUS, 352),
     (mozjs_anon_sym_DASH_DASH, 352), (mozjs_sym_comment, 5),
     (mozjs_anon_sym_BQUOTE, 355), (mozjs_sym_number, 85),
     (mozjs_sym_private_property_identifier, 358), (mozjs_sym_this, 89),
     (mozjs_sym_super, 89), (mozjs_sym_true, 89),
     (mozjs_sym_false, 89), (mozjs_sym_null, 89),
     (mozjs_sym_undefined, 91), (mozjs_anon_sym_AT, 93),
     (mozjs_anon_sym_static, 305), (mozjs_anon_sym_get, 305),
     (mozjs_anon_sym_set, 305), (mozjs_sym__automatic_semicolon, 311),
     (mozjs_sym__ternary_qmark, 311), (mozjs_sym_html_comment, 5)]"

definition mozjs_parse_row_44 :: "(TSSymbol \<times> nat) list" where
  "mozjs_parse_row_44 =
    [(mozjs_sym_export_statement, 422), (mozjs_sym_declaration, 422),
     (mozjs_sym_import, 1333), (mozjs_sym_import_statement, 422),
     (mozjs_sym_statement, 403), (mozjs_sym_expression_statement, 422),
     (mozjs_sym_variable_declaration, 427), (mozjs_sym_lexical_declaration, 427),
     (mozjs_sym_using_declaration, 427), (mozjs_sym_statement_block, 422),
     (mozjs_sym_if_statement, 422), (mozjs_sym_switch_statement, 422),
     (mozjs_sym_for_statement, 422), (mozjs_sym_for_in_statement, 422),
     (mozjs_sym_while_statement, 422), (mozjs_sym_do_statement, 422),
     (mozjs_sym_try_statement, 422), (mozjs_sym_with_statement, 422),
     (mozjs_sym_break_statement, 422), (mozjs_sym_continue_statement, 422),
     (mozjs_sym_debugger_statement, 422), (mozjs_sym_return_statement, 422),
     (mozjs_sym_throw_statement, 422), (mozjs_sym_empty_statement, 422),
     (mozjs_sym_labeled_statement, 422), (mozjs_sym_parenthesized_expression, 556),
     (mozjs_sym_expression, 823), (mozjs_sym_primary_expression, 693),
     (mozjs_sym_yield_expression, 743), (mozjs_sym_object, 793),
     (mozjs_sym_object_pattern, 1845), (mozjs_sym_array, 793),
     (mozjs_sym_array_pattern, 1845), (mozjs_sym_jsx_element, 743),
     (mozjs_sym_jsx_opening_element, 1158), (mozjs_sym_jsx_self_closing_element, 743),
     (mozjs_sym_class, 793), (mozjs_sym_class_declaration, 427),
     (mozjs_sym_function_expression, 793), (mozjs_sym_function_declaration, 427),
     (mozjs_sym_generator_function, 793), (mozjs_sym_generator_function_declaration, 427),
     (mozjs_sym_arrow_function, 793), (mozjs_sym_call_expression, 793),
     (mozjs_sym_new_expression, 692), (mozjs_sym_await_expression, 743),
     (mozjs_sym_member_expression, 556), (mozjs_sym_subscript_expression, 556),
     (mozjs_sym_assignment_expression, 743), (mozjs_sym__augmented_assignment_lhs, 1146),
     (mozjs_sym_augmented_assignment_expression, 743), (mozjs_sym__destructuring_pattern, 1845),
     (mozjs_sym_ternary_expression, 743), (mozjs_sym_binary_expression, 743),
     (mozjs_sym_unary_expression, 743), (mozjs_sym_update_expression, 743),
     (mozjs_sym_sequence_expression, 1743), (mozjs_sym_string, 793),
     (mozjs_sym_template_string, 793), (mozjs_sym_regex, 793),
     (mozjs_sym_meta_property, 793), (mozjs_sym_decorator, 1112),
     (mozjs_sym_formal_parameters, 1847), (mozjs_aux_sym_export_statement_repeat1, 1278),
     (mozjs_sym_identifier, 9), (mozjs_anon_sym_export, 13),
     (mozjs_anon_sym_LBRACE, 15), (mozjs_anon_sym_import, 17),
     (mozjs_anon_sym_with, 19), (mozjs_anon_sym_var, 21),
     (mozjs_anon_sym_let, 23), (mozjs_anon_sym_const, 25),
     (mozjs_anon_sym_using, 27), (mozjs_anon_sym_await, 29),
     (mozjs_anon_sym_if, 31), (mozjs_anon_sym_switch, 33),
     (mozjs_anon_sym_for, 35), (mozjs_anon_sym_LPAREN, 37),
     (mozjs_anon_sym_SEMI, 39), (mozjs_anon_sym_while, 41),
     (mozjs_anon_sym_do, 43), (mozjs_anon_sym_try, 45),
     (mozjs_anon_sym_break, 47), (mozjs_anon_sym_continue, 49),
     (mozjs_anon_sym_debugger, 51), (mozjs_anon_sym_return, 53),
     (mozjs_anon_sym_throw, 55), (mozjs_anon_sym_yield, 57),
     (mozjs_anon_sym_LBRACK, 59), (mozjs_anon_sym_LT, 61),
     (mozjs_anon_sym_DQUOTE, 63), (mozjs_anon_sym_SQUOTE, 65),
     (mozjs_anon_sym_class, 67), (mozjs_anon_sym_async, 69),
     (mozjs_anon_sym_function, 71), (mozjs_anon_sym_new, 73),
     (mozjs_anon_sym_PLUS, 75), (mozjs_anon_sym_DASH, 75),
     (mozjs_anon_sym_SLASH, 77), (mozjs_anon_sym_BANG, 79),
     (mozjs_anon_sym_TILDE, 79), (mozjs_anon_sym_typeof, 75),
     (mozjs_anon_sym_void, 75), (mozjs_anon_sym_delete, 75),
     (mozjs_anon_sym_PLUS_PLUS, 81), (mozjs_anon_sym_DASH_DASH, 81),
     (mozjs_sym_comment, 5), (mozjs_anon_sym_BQUOTE, 83),
     (mozjs_sym_number, 85), (mozjs_sym_private_property_identifier, 87),
     (mozjs_sym_this, 89), (mozjs_sym_super, 89),
     (mozjs_sym_true, 89), (mozjs_sym_false, 89),
     (mozjs_sym_null, 89), (mozjs_sym_undefined, 91),
     (mozjs_anon_sym_AT, 93), (mozjs_anon_sym_static, 95),
     (mozjs_anon_sym_get, 95), (mozjs_anon_sym_set, 95),
     (mozjs_sym_preproc, 97), (mozjs_sym_html_comment, 5)]"

definition mozjs_parse_row_45 :: "(TSSymbol \<times> nat) list" where
  "mozjs_parse_row_45 =
    [(mozjs_sym_export_statement, 422), (mozjs_sym_declaration, 422),
     (mozjs_sym_import, 1333), (mozjs_sym_import_statement, 422),
     (mozjs_sym_statement, 455), (mozjs_sym_expression_statement, 422),
     (mozjs_sym_variable_declaration, 427), (mozjs_sym_lexical_declaration, 427),
     (mozjs_sym_using_declaration, 427), (mozjs_sym_statement_block, 422),
     (mozjs_sym_if_statement, 422), (mozjs_sym_switch_statement, 422),
     (mozjs_sym_for_statement, 422), (mozjs_sym_for_in_statement, 422),
     (mozjs_sym_while_statement, 422), (mozjs_sym_do_statement, 422),
     (mozjs_sym_try_statement, 422), (mozjs_sym_with_statement, 422),
     (mozjs_sym_break_statement, 422), (mozjs_sym_continue_statement, 422),
     (mozjs_sym_debugger_statement, 422), (mozjs_sym_return_statement, 422),
     (mozjs_sym_throw_statement, 422), (mozjs_sym_empty_statement, 422),
     (mozjs_sym_labeled_statement, 422), (mozjs_sym_parenthesized_expression, 556),
     (mozjs_sym_expression, 823), (mozjs_sym_primary_expression, 693),
     (mozjs_sym_yield_expression, 743), (mozjs_sym_object, 793),
     (mozjs_sym_object_pattern, 1845), (mozjs_sym_array, 793),
     (mozjs_sym_array_pattern, 1845), (mozjs_sym_jsx_element, 743),
     (mozjs_sym_jsx_opening_element, 1158), (mozjs_sym_jsx_self_closing_element, 743),
     (mozjs_sym_class, 793), (mozjs_sym_class_declaration, 427),
     (mozjs_sym_function_expression, 793), (mozjs_sym_function_declaration, 427),
     (mozjs_sym_generator_function, 793), (mozjs_sym_generator_function_declaration, 427),
     (mozjs_sym_arrow_function, 793), (mozjs_sym_call_expression, 793),
     (mozjs_sym_new_expression, 692), (mozjs_sym_await_expression, 743),
     (mozjs_sym_member_expression, 556), (mozjs_sym_subscript_expression, 556),
     (mozjs_sym_assignment_expression, 743), (mozjs_sym__augmented_assignment_lhs, 1146),
     (mozjs_sym_augmented_assignment_expression, 743), (mozjs_sym__destructuring_pattern, 1845),
     (mozjs_sym_ternary_expression, 743), (mozjs_sym_binary_expression, 743),
     (mozjs_sym_unary_expression, 743), (mozjs_sym_update_expression, 743),
     (mozjs_sym_sequence_expression, 1743), (mozjs_sym_string, 793),
     (mozjs_sym_template_string, 793), (mozjs_sym_regex, 793),
     (mozjs_sym_meta_property, 793), (mozjs_sym_decorator, 1112),
     (mozjs_sym_formal_parameters, 1847), (mozjs_aux_sym_export_statement_repeat1, 1308),
     (mozjs_sym_identifier, 503), (mozjs_anon_sym_export, 505),
     (mozjs_anon_sym_LBRACE, 507), (mozjs_anon_sym_import, 17),
     (mozjs_anon_sym_with, 509), (mozjs_anon_sym_var, 21),
     (mozjs_anon_sym_let, 511), (mozjs_anon_sym_const, 25),
     (mozjs_anon_sym_using, 27), (mozjs_anon_sym_await, 513),
     (mozjs_anon_sym_if, 515), (mozjs_anon_sym_switch, 33),
     (mozjs_anon_sym_for, 517), (mozjs_anon_sym_LPAREN, 37),
     (mozjs_anon_sym_SEMI, 39), (mozjs_anon_sym_while, 519),
     (mozjs_anon_sym_do, 43), (mozjs_anon_sym_try, 45),
     (mozjs_anon_sym_break, 47), (mozjs_anon_sym_continue, 49),
     (mozjs_anon_sym_debugger, 51), (mozjs_anon_sym_return, 53),
     (mozjs_anon_sym_throw, 55), (mozjs_anon_sym_yield, 57),
     (mozjs_anon_sym_LBRACK, 59), (mozjs_anon_sym_LT, 61),
     (mozjs_anon_sym_DQUOTE, 63), (mozjs_anon_sym_SQUOTE, 65),
     (mozjs_anon_sym_class, 521), (mozjs_anon_sym_async, 523),
     (mozjs_anon_sym_function, 525), (mozjs_anon_sym_new, 73),
     (mozjs_anon_sym_PLUS, 75), (mozjs_anon_sym_DASH, 75),
     (mozjs_anon_sym_SLASH, 77), (mozjs_anon_sym_BANG, 79),
     (mozjs_anon_sym_TILDE, 79), (mozjs_anon_sym_typeof, 75),
     (mozjs_anon_sym_void, 75), (mozjs_anon_sym_delete, 75),
     (mozjs_anon_sym_PLUS_PLUS, 81), (mozjs_anon_sym_DASH_DASH, 81),
     (mozjs_sym_comment, 5), (mozjs_anon_sym_BQUOTE, 83),
     (mozjs_sym_number, 85), (mozjs_sym_private_property_identifier, 87),
     (mozjs_sym_this, 89), (mozjs_sym_super, 89),
     (mozjs_sym_true, 89), (mozjs_sym_false, 89),
     (mozjs_sym_null, 89), (mozjs_sym_undefined, 91),
     (mozjs_anon_sym_AT, 93), (mozjs_anon_sym_static, 527),
     (mozjs_anon_sym_get, 527), (mozjs_anon_sym_set, 527),
     (mozjs_sym_preproc, 97), (mozjs_sym_html_comment, 5)]"

definition mozjs_parse_row_46 :: "(TSSymbol \<times> nat) list" where
  "mozjs_parse_row_46 =
    [(mozjs_sym_export_statement, 422), (mozjs_sym_declaration, 422),
     (mozjs_sym_import, 1333), (mozjs_sym_import_statement, 422),
     (mozjs_sym_statement, 443), (mozjs_sym_expression_statement, 422),
     (mozjs_sym_variable_declaration, 427), (mozjs_sym_lexical_declaration, 427),
     (mozjs_sym_using_declaration, 427), (mozjs_sym_statement_block, 422),
     (mozjs_sym_if_statement, 422), (mozjs_sym_switch_statement, 422),
     (mozjs_sym_for_statement, 422), (mozjs_sym_for_in_statement, 422),
     (mozjs_sym_while_statement, 422), (mozjs_sym_do_statement, 422),
     (mozjs_sym_try_statement, 422), (mozjs_sym_with_statement, 422),
     (mozjs_sym_break_statement, 422), (mozjs_sym_continue_statement, 422),
     (mozjs_sym_debugger_statement, 422), (mozjs_sym_return_statement, 422),
     (mozjs_sym_throw_statement, 422), (mozjs_sym_empty_statement, 422),
     (mozjs_sym_labeled_statement, 422), (mozjs_sym_parenthesized_expression, 556),
     (mozjs_sym_expression, 823), (mozjs_sym_primary_expression, 693),
     (mozjs_sym_yield_expression, 743), (mozjs_sym_object, 793),
     (mozjs_sym_object_pattern, 1845), (mozjs_sym_array, 793),
     (mozjs_sym_array_pattern, 1845), (mozjs_sym_jsx_element, 743),
     (mozjs_sym_jsx_opening_element, 1158), (mozjs_sym_jsx_self_closing_element, 743),
     (mozjs_sym_class, 793), (mozjs_sym_class_declaration, 427),
     (mozjs_sym_function_expression, 793), (mozjs_sym_function_declaration, 427),
     (mozjs_sym_generator_function, 793), (mozjs_sym_generator_function_declaration, 427),
     (mozjs_sym_arrow_function, 793), (mozjs_sym_call_expression, 793),
     (mozjs_sym_new_expression, 692), (mozjs_sym_await_expression, 743),
     (mozjs_sym_member_expression, 556), (mozjs_sym_subscript_expression, 556),
     (mozjs_sym_assignment_expression, 743), (mozjs_sym__augmented_assignment_lhs, 1146),
     (mozjs_sym_augmented_assignment_expression, 743), (mozjs_sym__destructuring_pattern, 1845),
     (mozjs_sym_ternary_expression, 743), (mozjs_sym_binary_expression, 743),
     (mozjs_sym_unary_expression, 743), (mozjs_sym_update_expression, 743),
     (mozjs_sym_sequence_expression, 1743), (mozjs_sym_string, 793),
     (mozjs_sym_template_string, 793), (mozjs_sym_regex, 793),
     (mozjs_sym_meta_property, 793), (mozjs_sym_decorator, 1112),
     (mozjs_sym_formal_parameters, 1847), (mozjs_aux_sym_export_statement_repeat1, 1278),
     (mozjs_sym_identifier, 9), (mozjs_anon_sym_export, 13),
     (mozjs_anon_sym_LBRACE, 15), (mozjs_anon_sym_import, 17),
     (mozjs_anon_sym_with, 19), (mozjs_anon_sym_var, 21),
     (mozjs_anon_sym_let, 23), (mozjs_anon_sym_const, 25),
     (mozjs_anon_sym_using, 27), (mozjs_anon_sym_await, 29),
     (mozjs_anon_sym_if, 31), (mozjs_anon_sym_switch, 33),
     (mozjs_anon_sym_for, 35), (mozjs_anon_sym_LPAREN, 37),
     (mozjs_anon_sym_SEMI, 39), (mozjs_anon_sym_while, 41),
     (mozjs_anon_sym_do, 43), (mozjs_anon_sym_try, 45),
     (mozjs_anon_sym_break, 47), (mozjs_anon_sym_continue, 49),
     (mozjs_anon_sym_debugger, 51), (mozjs_anon_sym_return, 53),
     (mozjs_anon_sym_throw, 55), (mozjs_anon_sym_yield, 57),
     (mozjs_anon_sym_LBRACK, 59), (mozjs_anon_sym_LT, 61),
     (mozjs_anon_sym_DQUOTE, 63), (mozjs_anon_sym_SQUOTE, 65),
     (mozjs_anon_sym_class, 67), (mozjs_anon_sym_async, 69),
     (mozjs_anon_sym_function, 71), (mozjs_anon_sym_new, 73),
     (mozjs_anon_sym_PLUS, 75), (mozjs_anon_sym_DASH, 75),
     (mozjs_anon_sym_SLASH, 77), (mozjs_anon_sym_BANG, 79),
     (mozjs_anon_sym_TILDE, 79), (mozjs_anon_sym_typeof, 75),
     (mozjs_anon_sym_void, 75), (mozjs_anon_sym_delete, 75),
     (mozjs_anon_sym_PLUS_PLUS, 81), (mozjs_anon_sym_DASH_DASH, 81),
     (mozjs_sym_comment, 5), (mozjs_anon_sym_BQUOTE, 83),
     (mozjs_sym_number, 85), (mozjs_sym_private_property_identifier, 87),
     (mozjs_sym_this, 89), (mozjs_sym_super, 89),
     (mozjs_sym_true, 89), (mozjs_sym_false, 89),
     (mozjs_sym_null, 89), (mozjs_sym_undefined, 91),
     (mozjs_anon_sym_AT, 93), (mozjs_anon_sym_static, 95),
     (mozjs_anon_sym_get, 95), (mozjs_anon_sym_set, 95),
     (mozjs_sym_preproc, 97), (mozjs_sym_html_comment, 5)]"

definition mozjs_parse_row_47 :: "(TSSymbol \<times> nat) list" where
  "mozjs_parse_row_47 =
    [(mozjs_sym_import, 1340), (mozjs_sym_parenthesized_expression, 525),
     (mozjs_sym_expression, 586), (mozjs_sym_primary_expression, 584),
     (mozjs_sym_yield_expression, 638), (mozjs_sym_object, 645),
     (mozjs_sym_object_pattern, 1827), (mozjs_sym_array, 645),
     (mozjs_sym_array_pattern, 1827), (mozjs_sym_jsx_element, 638),
     (mozjs_sym_jsx_opening_element, 1152), (mozjs_sym_jsx_self_closing_element, 638),
     (mozjs_sym_class, 645), (mozjs_sym_function_expression, 645),
     (mozjs_sym_generator_function, 645), (mozjs_sym_arrow_function, 645),
     (mozjs_sym_call_expression, 645), (mozjs_sym_new_expression, 587),
     (mozjs_sym_await_expression, 638), (mozjs_sym_member_expression, 525),
     (mozjs_sym_subscript_expression, 525), (mozjs_sym_assignment_expression, 638),
     (mozjs_sym__augmented_assignment_lhs, 1145), (mozjs_sym_augmented_assignment_expression,
       638),
     (mozjs_sym__destructuring_pattern, 1827), (mozjs_sym_ternary_expression, 638),
     (mozjs_sym_binary_expression, 638), (mozjs_sym_unary_expression, 638),
     (mozjs_sym_update_expression, 638), (mozjs_sym_string, 645),
     (mozjs_sym_template_string, 645), (mozjs_sym_regex, 645),
     (mozjs_sym_meta_property, 645), (mozjs_sym_decorator, 1112),
     (mozjs_sym_formal_parameters, 1777), (mozjs_aux_sym_export_statement_repeat1, 1395),
     (mozjs_sym_identifier, 384), (mozjs_anon_sym_export, 386),
     (mozjs_anon_sym_STAR, 307), (mozjs_anon_sym_LBRACE, 388),
     (mozjs_anon_sym_COMMA, 538), (mozjs_anon_sym_RBRACE, 538),
     (mozjs_anon_sym_import, 390), (mozjs_anon_sym_let, 386),
     (mozjs_anon_sym_await, 392), (mozjs_anon_sym_LPAREN, 394),
     (mozjs_anon_sym_RPAREN, 538), (mozjs_anon_sym_in, 307),
     (mozjs_anon_sym_yield, 397), (mozjs_anon_sym_EQ, 541),
     (mozjs_anon_sym_LBRACK, 401), (mozjs_anon_sym_RBRACK, 538),
     (mozjs_anon_sym_LT, 404), (mozjs_anon_sym_GT, 307),
     (mozjs_anon_sym_DOT, 307), (mozjs_anon_sym_DQUOTE, 407),
     (mozjs_anon_sym_SQUOTE, 409), (mozjs_anon_sym_class, 411),
     (mozjs_anon_sym_async, 413), (mozjs_anon_sym_function, 415),
     (mozjs_anon_sym_EQ_GT, 417), (mozjs_sym_optional_chain, 311),
     (mozjs_anon_sym_new, 419), (mozjs_anon_sym_PLUS_EQ, 344),
     (mozjs_anon_sym_DASH_EQ, 344), (mozjs_anon_sym_STAR_EQ, 344),
     (mozjs_anon_sym_SLASH_EQ, 344), (mozjs_anon_sym_PERCENT_EQ, 344),
     (mozjs_anon_sym_CARET_EQ, 344), (mozjs_anon_sym_AMP_EQ, 344),
     (mozjs_anon_sym_PIPE_EQ, 344), (mozjs_anon_sym_GT_GT_EQ, 344),
     (mozjs_anon_sym_GT_GT_GT_EQ, 344), (mozjs_anon_sym_LT_LT_EQ, 344),
     (mozjs_anon_sym_STAR_STAR_EQ, 344), (mozjs_anon_sym_AMP_AMP_EQ, 344),
     (mozjs_anon_sym_PIPE_PIPE_EQ, 344), (mozjs_anon_sym_QMARK_QMARK_EQ, 344),
     (mozjs_anon_sym_AMP_AMP, 307), (mozjs_anon_sym_PIPE_PIPE, 307),
     (mozjs_anon_sym_GT_GT, 307), (mozjs_anon_sym_GT_GT_GT, 307),
     (mozjs_anon_sym_LT_LT, 307), (mozjs_anon_sym_AMP, 307),
     (mozjs_anon_sym_CARET, 307), (mozjs_anon_sym_PIPE, 307),
     (mozjs_anon_sym_PLUS, 421), (mozjs_anon_sym_DASH, 421),
     (mozjs_anon_sym_SLASH, 424), (mozjs_anon_sym_PERCENT, 307),
     (mozjs_anon_sym_STAR_STAR, 307), (mozjs_anon_sym_LT_EQ, 311),
     (mozjs_anon_sym_EQ_EQ, 307), (mozjs_anon_sym_EQ_EQ_EQ, 311),
     (mozjs_anon_sym_BANG_EQ, 307), (mozjs_anon_sym_BANG_EQ_EQ, 311),
     (mozjs_anon_sym_GT_EQ, 311), (mozjs_anon_sym_QMARK_QMARK, 307),
     (mozjs_anon_sym_instanceof, 307), (mozjs_anon_sym_BANG, 427),
     (mozjs_anon_sym_TILDE, 429), (mozjs_anon_sym_typeof, 427),
     (mozjs_anon_sym_void, 427), (mozjs_anon_sym_delete, 427),
     (mozjs_anon_sym_PLUS_PLUS, 431), (mozjs_anon_sym_DASH_DASH, 431),
     (mozjs_sym_comment, 5), (mozjs_anon_sym_BQUOTE, 434),
     (mozjs_sym_number, 437), (mozjs_sym_private_property_identifier, 439),
     (mozjs_sym_this, 441), (mozjs_sym_super, 441),
     (mozjs_sym_true, 441), (mozjs_sym_false, 441),
     (mozjs_sym_null, 441), (mozjs_sym_undefined, 443),
     (mozjs_anon_sym_AT, 93), (mozjs_anon_sym_static, 386),
     (mozjs_anon_sym_get, 386), (mozjs_anon_sym_set, 386),
     (mozjs_sym__ternary_qmark, 311), (mozjs_sym_html_comment, 5)]"

definition mozjs_parse_row_48 :: "(TSSymbol \<times> nat) list" where
  "mozjs_parse_row_48 =
    [(mozjs_sym_export_statement, 422), (mozjs_sym_declaration, 422),
     (mozjs_sym_import, 1333), (mozjs_sym_import_statement, 422),
     (mozjs_sym_statement, 425), (mozjs_sym_expression_statement, 422),
     (mozjs_sym_variable_declaration, 427), (mozjs_sym_lexical_declaration, 427),
     (mozjs_sym_using_declaration, 427), (mozjs_sym_statement_block, 422),
     (mozjs_sym_if_statement, 422), (mozjs_sym_switch_statement, 422),
     (mozjs_sym_for_statement, 422), (mozjs_sym_for_in_statement, 422),
     (mozjs_sym_while_statement, 422), (mozjs_sym_do_statement, 422),
     (mozjs_sym_try_statement, 422), (mozjs_sym_with_statement, 422),
     (mozjs_sym_break_statement, 422), (mozjs_sym_continue_statement, 422),
     (mozjs_sym_debugger_statement, 422), (mozjs_sym_return_statement, 422),
     (mozjs_sym_throw_statement, 422), (mozjs_sym_empty_statement, 422),
     (mozjs_sym_labeled_statement, 422), (mozjs_sym_parenthesized_expression, 556),
     (mozjs_sym_expression, 823), (mozjs_sym_primary_expression, 693),
     (mozjs_sym_yield_expression, 743), (mozjs_sym_object, 793),
     (mozjs_sym_object_pattern, 1845), (mozjs_sym_array, 793),
     (mozjs_sym_array_pattern, 1845), (mozjs_sym_jsx_element, 743),
     (mozjs_sym_jsx_opening_element, 1158), (mozjs_sym_jsx_self_closing_element, 743),
     (mozjs_sym_class, 793), (mozjs_sym_class_declaration, 427),
     (mozjs_sym_function_expression, 793), (mozjs_sym_function_declaration, 427),
     (mozjs_sym_generator_function, 793), (mozjs_sym_generator_function_declaration, 427),
     (mozjs_sym_arrow_function, 793), (mozjs_sym_call_expression, 793),
     (mozjs_sym_new_expression, 692), (mozjs_sym_await_expression, 743),
     (mozjs_sym_member_expression, 556), (mozjs_sym_subscript_expression, 556),
     (mozjs_sym_assignment_expression, 743), (mozjs_sym__augmented_assignment_lhs, 1146),
     (mozjs_sym_augmented_assignment_expression, 743), (mozjs_sym__destructuring_pattern, 1845),
     (mozjs_sym_ternary_expression, 743), (mozjs_sym_binary_expression, 743),
     (mozjs_sym_unary_expression, 743), (mozjs_sym_update_expression, 743),
     (mozjs_sym_sequence_expression, 1743), (mozjs_sym_string, 793),
     (mozjs_sym_template_string, 793), (mozjs_sym_regex, 793),
     (mozjs_sym_meta_property, 793), (mozjs_sym_decorator, 1112),
     (mozjs_sym_formal_parameters, 1847), (mozjs_aux_sym_export_statement_repeat1, 1308),
     (mozjs_sym_identifier, 503), (mozjs_anon_sym_export, 505),
     (mozjs_anon_sym_LBRACE, 507), (mozjs_anon_sym_import, 17),
     (mozjs_anon_sym_with, 509), (mozjs_anon_sym_var, 21),
     (mozjs_anon_sym_let, 511), (mozjs_anon_sym_const, 25),
     (mozjs_anon_sym_using, 27), (mozjs_anon_sym_await, 513),
     (mozjs_anon_sym_if, 515), (mozjs_anon_sym_switch, 33),
     (mozjs_anon_sym_for, 517), (mozjs_anon_sym_LPAREN, 37),
     (mozjs_anon_sym_SEMI, 39), (mozjs_anon_sym_while, 519),
     (mozjs_anon_sym_do, 43), (mozjs_anon_sym_try, 45),
     (mozjs_anon_sym_break, 47), (mozjs_anon_sym_continue, 49),
     (mozjs_anon_sym_debugger, 51), (mozjs_anon_sym_return, 53),
     (mozjs_anon_sym_throw, 55), (mozjs_anon_sym_yield, 57),
     (mozjs_anon_sym_LBRACK, 59), (mozjs_anon_sym_LT, 61),
     (mozjs_anon_sym_DQUOTE, 63), (mozjs_anon_sym_SQUOTE, 65),
     (mozjs_anon_sym_class, 521), (mozjs_anon_sym_async, 523),
     (mozjs_anon_sym_function, 525), (mozjs_anon_sym_new, 73),
     (mozjs_anon_sym_PLUS, 75), (mozjs_anon_sym_DASH, 75),
     (mozjs_anon_sym_SLASH, 77), (mozjs_anon_sym_BANG, 79),
     (mozjs_anon_sym_TILDE, 79), (mozjs_anon_sym_typeof, 75),
     (mozjs_anon_sym_void, 75), (mozjs_anon_sym_delete, 75),
     (mozjs_anon_sym_PLUS_PLUS, 81), (mozjs_anon_sym_DASH_DASH, 81),
     (mozjs_sym_comment, 5), (mozjs_anon_sym_BQUOTE, 83),
     (mozjs_sym_number, 85), (mozjs_sym_private_property_identifier, 87),
     (mozjs_sym_this, 89), (mozjs_sym_super, 89),
     (mozjs_sym_true, 89), (mozjs_sym_false, 89),
     (mozjs_sym_null, 89), (mozjs_sym_undefined, 91),
     (mozjs_anon_sym_AT, 93), (mozjs_anon_sym_static, 527),
     (mozjs_anon_sym_get, 527), (mozjs_anon_sym_set, 527),
     (mozjs_sym_preproc, 97), (mozjs_sym_html_comment, 5)]"

definition mozjs_parse_row_49 :: "(TSSymbol \<times> nat) list" where
  "mozjs_parse_row_49 =
    [(mozjs_sym_export_statement, 422), (mozjs_sym_declaration, 422),
     (mozjs_sym_import, 1333), (mozjs_sym_import_statement, 422),
     (mozjs_sym_statement, 1462), (mozjs_sym_expression_statement, 422),
     (mozjs_sym_variable_declaration, 427), (mozjs_sym_lexical_declaration, 427),
     (mozjs_sym_using_declaration, 427), (mozjs_sym_statement_block, 422),
     (mozjs_sym_if_statement, 422), (mozjs_sym_switch_statement, 422),
     (mozjs_sym_for_statement, 422), (mozjs_sym_for_in_statement, 422),
     (mozjs_sym_while_statement, 422), (mozjs_sym_do_statement, 422),
     (mozjs_sym_try_statement, 422), (mozjs_sym_with_statement, 422),
     (mozjs_sym_break_statement, 422), (mozjs_sym_continue_statement, 422),
     (mozjs_sym_debugger_statement, 422), (mozjs_sym_return_statement, 422),
     (mozjs_sym_throw_statement, 422), (mozjs_sym_empty_statement, 422),
     (mozjs_sym_labeled_statement, 422), (mozjs_sym_parenthesized_expression, 556),
     (mozjs_sym_expression, 823), (mozjs_sym_primary_expression, 693),
     (mozjs_sym_yield_expression, 743), (mozjs_sym_object, 793),
     (mozjs_sym_object_pattern, 1845), (mozjs_sym_array, 793),
     (mozjs_sym_array_pattern, 1845), (mozjs_sym_jsx_element, 743),
     (mozjs_sym_jsx_opening_element, 1158), (mozjs_sym_jsx_self_closing_element, 743),
     (mozjs_sym_class, 793), (mozjs_sym_class_declaration, 427),
     (mozjs_sym_function_expression, 793), (mozjs_sym_function_declaration, 427),
     (mozjs_sym_generator_function, 793), (mozjs_sym_generator_function_declaration, 427),
     (mozjs_sym_arrow_function, 793), (mozjs_sym_call_expression, 793),
     (mozjs_sym_new_expression, 692), (mozjs_sym_await_expression, 743),
     (mozjs_sym_member_expression, 556), (mozjs_sym_subscript_expression, 556),
     (mozjs_sym_assignment_expression, 743), (mozjs_sym__augmented_assignment_lhs, 1146),
     (mozjs_sym_augmented_assignment_expression, 743), (mozjs_sym__destructuring_pattern, 1845),
     (mozjs_sym_ternary_expression, 743), (mozjs_sym_binary_expression, 743),
     (mozjs_sym_unary_expression, 743), (mozjs_sym_update_expression, 743),
     (mozjs_sym_sequence_expression, 1743), (mozjs_sym_string, 793),
     (mozjs_sym_template_string, 793), (mozjs_sym_regex, 793),
     (mozjs_sym_meta_property, 793), (mozjs_sym_decorator, 1112),
     (mozjs_sym_formal_parameters, 1847), (mozjs_aux_sym_export_statement_repeat1, 1308),
     (mozjs_sym_identifier, 503), (mozjs_anon_sym_export, 505),
     (mozjs_anon_sym_LBRACE, 507), (mozjs_anon_sym_import, 17),
     (mozjs_anon_sym_with, 509), (mozjs_anon_sym_var, 21),
     (mozjs_anon_sym_let, 511), (mozjs_anon_sym_const, 25),
     (mozjs_anon_sym_using, 27), (mozjs_anon_sym_await, 513),
     (mozjs_anon_sym_if, 515), (mozjs_anon_sym_switch, 33),
     (mozjs_anon_sym_for, 517), (mozjs_anon_sym_LPAREN, 37),
     (mozjs_anon_sym_SEMI, 39), (mozjs_anon_sym_while, 519),
     (mozjs_anon_sym_do, 43), (mozjs_anon_sym_try, 45),
     (mozjs_anon_sym_break, 47), (mozjs_anon_sym_continue, 49),
     (mozjs_anon_sym_debugger, 51), (mozjs_anon_sym_return, 53),
     (mozjs_anon_sym_throw, 55), (mozjs_anon_sym_yield, 57),
     (mozjs_anon_sym_LBRACK, 59), (mozjs_anon_sym_LT, 61),
     (mozjs_anon_sym_DQUOTE, 63), (mozjs_anon_sym_SQUOTE, 65),
     (mozjs_anon_sym_class, 521), (mozjs_anon_sym_async, 523),
     (mozjs_anon_sym_function, 525), (mozjs_anon_sym_new, 73),
     (mozjs_anon_sym_PLUS, 75), (mozjs_anon_sym_DASH, 75),
     (mozjs_anon_sym_SLASH, 77), (mozjs_anon_sym_BANG, 79),
     (mozjs_anon_sym_TILDE, 79), (mozjs_anon_sym_typeof, 75),
     (mozjs_anon_sym_void, 75), (mozjs_anon_sym_delete, 75),
     (mozjs_anon_sym_PLUS_PLUS, 81), (mozjs_anon_sym_DASH_DASH, 81),
     (mozjs_sym_comment, 5), (mozjs_anon_sym_BQUOTE, 83),
     (mozjs_sym_number, 85), (mozjs_sym_private_property_identifier, 87),
     (mozjs_sym_this, 89), (mozjs_sym_super, 89),
     (mozjs_sym_true, 89), (mozjs_sym_false, 89),
     (mozjs_sym_null, 89), (mozjs_sym_undefined, 91),
     (mozjs_anon_sym_AT, 93), (mozjs_anon_sym_static, 527),
     (mozjs_anon_sym_get, 527), (mozjs_anon_sym_set, 527),
     (mozjs_sym_preproc, 97), (mozjs_sym_html_comment, 5)]"

definition mozjs_parse_row_50 :: "(TSSymbol \<times> nat) list" where
  "mozjs_parse_row_50 =
    [(mozjs_sym_export_statement, 422), (mozjs_sym_declaration, 422),
     (mozjs_sym_import, 1333), (mozjs_sym_import_statement, 422),
     (mozjs_sym_statement, 445), (mozjs_sym_expression_statement, 422),
     (mozjs_sym_variable_declaration, 427), (mozjs_sym_lexical_declaration, 427),
     (mozjs_sym_using_declaration, 427), (mozjs_sym_statement_block, 422),
     (mozjs_sym_if_statement, 422), (mozjs_sym_switch_statement, 422),
     (mozjs_sym_for_statement, 422), (mozjs_sym_for_in_statement, 422),
     (mozjs_sym_while_statement, 422), (mozjs_sym_do_statement, 422),
     (mozjs_sym_try_statement, 422), (mozjs_sym_with_statement, 422),
     (mozjs_sym_break_statement, 422), (mozjs_sym_continue_statement, 422),
     (mozjs_sym_debugger_statement, 422), (mozjs_sym_return_statement, 422),
     (mozjs_sym_throw_statement, 422), (mozjs_sym_empty_statement, 422),
     (mozjs_sym_labeled_statement, 422), (mozjs_sym_parenthesized_expression, 556),
     (mozjs_sym_expression, 823), (mozjs_sym_primary_expression, 693),
     (mozjs_sym_yield_expression, 743), (mozjs_sym_object, 793),
     (mozjs_sym_object_pattern, 1845), (mozjs_sym_array, 793),
     (mozjs_sym_array_pattern, 1845), (mozjs_sym_jsx_element, 743),
     (mozjs_sym_jsx_opening_element, 1158), (mozjs_sym_jsx_self_closing_element, 743),
     (mozjs_sym_class, 793), (mozjs_sym_class_declaration, 427),
     (mozjs_sym_function_expression, 793), (mozjs_sym_function_declaration, 427),
     (mozjs_sym_generator_function, 793), (mozjs_sym_generator_function_declaration, 427),
     (mozjs_sym_arrow_function, 793), (mozjs_sym_call_expression, 793),
     (mozjs_sym_new_expression, 692), (mozjs_sym_await_expression, 743),
     (mozjs_sym_member_expression, 556), (mozjs_sym_subscript_expression, 556),
     (mozjs_sym_assignment_expression, 743), (mozjs_sym__augmented_assignment_lhs, 1146),
     (mozjs_sym_augmented_assignment_expression, 743), (mozjs_sym__destructuring_pattern, 1845),
     (mozjs_sym_ternary_expression, 743), (mozjs_sym_binary_expression, 743),
     (mozjs_sym_unary_expression, 743), (mozjs_sym_update_expression, 743),
     (mozjs_sym_sequence_expression, 1743), (mozjs_sym_string, 793),
     (mozjs_sym_template_string, 793), (mozjs_sym_regex, 793),
     (mozjs_sym_meta_property, 793), (mozjs_sym_decorator, 1112),
     (mozjs_sym_formal_parameters, 1847), (mozjs_aux_sym_export_statement_repeat1, 1308),
     (mozjs_sym_identifier, 503), (mozjs_anon_sym_export, 505),
     (mozjs_anon_sym_LBRACE, 507), (mozjs_anon_sym_import, 17),
     (mozjs_anon_sym_with, 509), (mozjs_anon_sym_var, 21),
     (mozjs_anon_sym_let, 511), (mozjs_anon_sym_const, 25),
     (mozjs_anon_sym_using, 27), (mozjs_anon_sym_await, 513),
     (mozjs_anon_sym_if, 515), (mozjs_anon_sym_switch, 33),
     (mozjs_anon_sym_for, 517), (mozjs_anon_sym_LPAREN, 37),
     (mozjs_anon_sym_SEMI, 39), (mozjs_anon_sym_while, 519),
     (mozjs_anon_sym_do, 43), (mozjs_anon_sym_try, 45),
     (mozjs_anon_sym_break, 47), (mozjs_anon_sym_continue, 49),
     (mozjs_anon_sym_debugger, 51), (mozjs_anon_sym_return, 53),
     (mozjs_anon_sym_throw, 55), (mozjs_anon_sym_yield, 57),
     (mozjs_anon_sym_LBRACK, 59), (mozjs_anon_sym_LT, 61),
     (mozjs_anon_sym_DQUOTE, 63), (mozjs_anon_sym_SQUOTE, 65),
     (mozjs_anon_sym_class, 521), (mozjs_anon_sym_async, 523),
     (mozjs_anon_sym_function, 525), (mozjs_anon_sym_new, 73),
     (mozjs_anon_sym_PLUS, 75), (mozjs_anon_sym_DASH, 75),
     (mozjs_anon_sym_SLASH, 77), (mozjs_anon_sym_BANG, 79),
     (mozjs_anon_sym_TILDE, 79), (mozjs_anon_sym_typeof, 75),
     (mozjs_anon_sym_void, 75), (mozjs_anon_sym_delete, 75),
     (mozjs_anon_sym_PLUS_PLUS, 81), (mozjs_anon_sym_DASH_DASH, 81),
     (mozjs_sym_comment, 5), (mozjs_anon_sym_BQUOTE, 83),
     (mozjs_sym_number, 85), (mozjs_sym_private_property_identifier, 87),
     (mozjs_sym_this, 89), (mozjs_sym_super, 89),
     (mozjs_sym_true, 89), (mozjs_sym_false, 89),
     (mozjs_sym_null, 89), (mozjs_sym_undefined, 91),
     (mozjs_anon_sym_AT, 93), (mozjs_anon_sym_static, 527),
     (mozjs_anon_sym_get, 527), (mozjs_anon_sym_set, 527),
     (mozjs_sym_preproc, 97), (mozjs_sym_html_comment, 5)]"

definition mozjs_parse_row_51 :: "(TSSymbol \<times> nat) list" where
  "mozjs_parse_row_51 =
    [(mozjs_sym_export_statement, 422), (mozjs_sym_declaration, 422),
     (mozjs_sym_import, 1333), (mozjs_sym_import_statement, 422),
     (mozjs_sym_statement, 448), (mozjs_sym_expression_statement, 422),
     (mozjs_sym_variable_declaration, 427), (mozjs_sym_lexical_declaration, 427),
     (mozjs_sym_using_declaration, 427), (mozjs_sym_statement_block, 422),
     (mozjs_sym_if_statement, 422), (mozjs_sym_switch_statement, 422),
     (mozjs_sym_for_statement, 422), (mozjs_sym_for_in_statement, 422),
     (mozjs_sym_while_statement, 422), (mozjs_sym_do_statement, 422),
     (mozjs_sym_try_statement, 422), (mozjs_sym_with_statement, 422),
     (mozjs_sym_break_statement, 422), (mozjs_sym_continue_statement, 422),
     (mozjs_sym_debugger_statement, 422), (mozjs_sym_return_statement, 422),
     (mozjs_sym_throw_statement, 422), (mozjs_sym_empty_statement, 422),
     (mozjs_sym_labeled_statement, 422), (mozjs_sym_parenthesized_expression, 556),
     (mozjs_sym_expression, 823), (mozjs_sym_primary_expression, 693),
     (mozjs_sym_yield_expression, 743), (mozjs_sym_object, 793),
     (mozjs_sym_object_pattern, 1845), (mozjs_sym_array, 793),
     (mozjs_sym_array_pattern, 1845), (mozjs_sym_jsx_element, 743),
     (mozjs_sym_jsx_opening_element, 1158), (mozjs_sym_jsx_self_closing_element, 743),
     (mozjs_sym_class, 793), (mozjs_sym_class_declaration, 427),
     (mozjs_sym_function_expression, 793), (mozjs_sym_function_declaration, 427),
     (mozjs_sym_generator_function, 793), (mozjs_sym_generator_function_declaration, 427),
     (mozjs_sym_arrow_function, 793), (mozjs_sym_call_expression, 793),
     (mozjs_sym_new_expression, 692), (mozjs_sym_await_expression, 743),
     (mozjs_sym_member_expression, 556), (mozjs_sym_subscript_expression, 556),
     (mozjs_sym_assignment_expression, 743), (mozjs_sym__augmented_assignment_lhs, 1146),
     (mozjs_sym_augmented_assignment_expression, 743), (mozjs_sym__destructuring_pattern, 1845),
     (mozjs_sym_ternary_expression, 743), (mozjs_sym_binary_expression, 743),
     (mozjs_sym_unary_expression, 743), (mozjs_sym_update_expression, 743),
     (mozjs_sym_sequence_expression, 1743), (mozjs_sym_string, 793),
     (mozjs_sym_template_string, 793), (mozjs_sym_regex, 793),
     (mozjs_sym_meta_property, 793), (mozjs_sym_decorator, 1112),
     (mozjs_sym_formal_parameters, 1847), (mozjs_aux_sym_export_statement_repeat1, 1308),
     (mozjs_sym_identifier, 503), (mozjs_anon_sym_export, 505),
     (mozjs_anon_sym_LBRACE, 507), (mozjs_anon_sym_import, 17),
     (mozjs_anon_sym_with, 509), (mozjs_anon_sym_var, 21),
     (mozjs_anon_sym_let, 511), (mozjs_anon_sym_const, 25),
     (mozjs_anon_sym_using, 27), (mozjs_anon_sym_await, 513),
     (mozjs_anon_sym_if, 515), (mozjs_anon_sym_switch, 33),
     (mozjs_anon_sym_for, 517), (mozjs_anon_sym_LPAREN, 37),
     (mozjs_anon_sym_SEMI, 39), (mozjs_anon_sym_while, 519),
     (mozjs_anon_sym_do, 43), (mozjs_anon_sym_try, 45),
     (mozjs_anon_sym_break, 47), (mozjs_anon_sym_continue, 49),
     (mozjs_anon_sym_debugger, 51), (mozjs_anon_sym_return, 53),
     (mozjs_anon_sym_throw, 55), (mozjs_anon_sym_yield, 57),
     (mozjs_anon_sym_LBRACK, 59), (mozjs_anon_sym_LT, 61),
     (mozjs_anon_sym_DQUOTE, 63), (mozjs_anon_sym_SQUOTE, 65),
     (mozjs_anon_sym_class, 521), (mozjs_anon_sym_async, 523),
     (mozjs_anon_sym_function, 525), (mozjs_anon_sym_new, 73),
     (mozjs_anon_sym_PLUS, 75), (mozjs_anon_sym_DASH, 75),
     (mozjs_anon_sym_SLASH, 77), (mozjs_anon_sym_BANG, 79),
     (mozjs_anon_sym_TILDE, 79), (mozjs_anon_sym_typeof, 75),
     (mozjs_anon_sym_void, 75), (mozjs_anon_sym_delete, 75),
     (mozjs_anon_sym_PLUS_PLUS, 81), (mozjs_anon_sym_DASH_DASH, 81),
     (mozjs_sym_comment, 5), (mozjs_anon_sym_BQUOTE, 83),
     (mozjs_sym_number, 85), (mozjs_sym_private_property_identifier, 87),
     (mozjs_sym_this, 89), (mozjs_sym_super, 89),
     (mozjs_sym_true, 89), (mozjs_sym_false, 89),
     (mozjs_sym_null, 89), (mozjs_sym_undefined, 91),
     (mozjs_anon_sym_AT, 93), (mozjs_anon_sym_static, 527),
     (mozjs_anon_sym_get, 527), (mozjs_anon_sym_set, 527),
     (mozjs_sym_preproc, 97), (mozjs_sym_html_comment, 5)]"

definition mozjs_parse_row_52 :: "(TSSymbol \<times> nat) list" where
  "mozjs_parse_row_52 =
    [(mozjs_sym_export_statement, 422), (mozjs_sym_declaration, 422),
     (mozjs_sym_import, 1333), (mozjs_sym_import_statement, 422),
     (mozjs_sym_statement, 435), (mozjs_sym_expression_statement, 422),
     (mozjs_sym_variable_declaration, 427), (mozjs_sym_lexical_declaration, 427),
     (mozjs_sym_using_declaration, 427), (mozjs_sym_statement_block, 422),
     (mozjs_sym_if_statement, 422), (mozjs_sym_switch_statement, 422),
     (mozjs_sym_for_statement, 422), (mozjs_sym_for_in_statement, 422),
     (mozjs_sym_while_statement, 422), (mozjs_sym_do_statement, 422),
     (mozjs_sym_try_statement, 422), (mozjs_sym_with_statement, 422),
     (mozjs_sym_break_statement, 422), (mozjs_sym_continue_statement, 422),
     (mozjs_sym_debugger_statement, 422), (mozjs_sym_return_statement, 422),
     (mozjs_sym_throw_statement, 422), (mozjs_sym_empty_statement, 422),
     (mozjs_sym_labeled_statement, 422), (mozjs_sym_parenthesized_expression, 556),
     (mozjs_sym_expression, 823), (mozjs_sym_primary_expression, 693),
     (mozjs_sym_yield_expression, 743), (mozjs_sym_object, 793),
     (mozjs_sym_object_pattern, 1845), (mozjs_sym_array, 793),
     (mozjs_sym_array_pattern, 1845), (mozjs_sym_jsx_element, 743),
     (mozjs_sym_jsx_opening_element, 1158), (mozjs_sym_jsx_self_closing_element, 743),
     (mozjs_sym_class, 793), (mozjs_sym_class_declaration, 427),
     (mozjs_sym_function_expression, 793), (mozjs_sym_function_declaration, 427),
     (mozjs_sym_generator_function, 793), (mozjs_sym_generator_function_declaration, 427),
     (mozjs_sym_arrow_function, 793), (mozjs_sym_call_expression, 793),
     (mozjs_sym_new_expression, 692), (mozjs_sym_await_expression, 743),
     (mozjs_sym_member_expression, 556), (mozjs_sym_subscript_expression, 556),
     (mozjs_sym_assignment_expression, 743), (mozjs_sym__augmented_assignment_lhs, 1146),
     (mozjs_sym_augmented_assignment_expression, 743), (mozjs_sym__destructuring_pattern, 1845),
     (mozjs_sym_ternary_expression, 743), (mozjs_sym_binary_expression, 743),
     (mozjs_sym_unary_expression, 743), (mozjs_sym_update_expression, 743),
     (mozjs_sym_sequence_expression, 1743), (mozjs_sym_string, 793),
     (mozjs_sym_template_string, 793), (mozjs_sym_regex, 793),
     (mozjs_sym_meta_property, 793), (mozjs_sym_decorator, 1112),
     (mozjs_sym_formal_parameters, 1847), (mozjs_aux_sym_export_statement_repeat1, 1308),
     (mozjs_sym_identifier, 503), (mozjs_anon_sym_export, 505),
     (mozjs_anon_sym_LBRACE, 507), (mozjs_anon_sym_import, 17),
     (mozjs_anon_sym_with, 509), (mozjs_anon_sym_var, 21),
     (mozjs_anon_sym_let, 511), (mozjs_anon_sym_const, 25),
     (mozjs_anon_sym_using, 27), (mozjs_anon_sym_await, 513),
     (mozjs_anon_sym_if, 515), (mozjs_anon_sym_switch, 33),
     (mozjs_anon_sym_for, 517), (mozjs_anon_sym_LPAREN, 37),
     (mozjs_anon_sym_SEMI, 39), (mozjs_anon_sym_while, 519),
     (mozjs_anon_sym_do, 43), (mozjs_anon_sym_try, 45),
     (mozjs_anon_sym_break, 47), (mozjs_anon_sym_continue, 49),
     (mozjs_anon_sym_debugger, 51), (mozjs_anon_sym_return, 53),
     (mozjs_anon_sym_throw, 55), (mozjs_anon_sym_yield, 57),
     (mozjs_anon_sym_LBRACK, 59), (mozjs_anon_sym_LT, 61),
     (mozjs_anon_sym_DQUOTE, 63), (mozjs_anon_sym_SQUOTE, 65),
     (mozjs_anon_sym_class, 521), (mozjs_anon_sym_async, 523),
     (mozjs_anon_sym_function, 525), (mozjs_anon_sym_new, 73),
     (mozjs_anon_sym_PLUS, 75), (mozjs_anon_sym_DASH, 75),
     (mozjs_anon_sym_SLASH, 77), (mozjs_anon_sym_BANG, 79),
     (mozjs_anon_sym_TILDE, 79), (mozjs_anon_sym_typeof, 75),
     (mozjs_anon_sym_void, 75), (mozjs_anon_sym_delete, 75),
     (mozjs_anon_sym_PLUS_PLUS, 81), (mozjs_anon_sym_DASH_DASH, 81),
     (mozjs_sym_comment, 5), (mozjs_anon_sym_BQUOTE, 83),
     (mozjs_sym_number, 85), (mozjs_sym_private_property_identifier, 87),
     (mozjs_sym_this, 89), (mozjs_sym_super, 89),
     (mozjs_sym_true, 89), (mozjs_sym_false, 89),
     (mozjs_sym_null, 89), (mozjs_sym_undefined, 91),
     (mozjs_anon_sym_AT, 93), (mozjs_anon_sym_static, 527),
     (mozjs_anon_sym_get, 527), (mozjs_anon_sym_set, 527),
     (mozjs_sym_preproc, 97), (mozjs_sym_html_comment, 5)]"

definition mozjs_parse_row_53 :: "(TSSymbol \<times> nat) list" where
  "mozjs_parse_row_53 =
    [(mozjs_sym_export_statement, 422), (mozjs_sym_declaration, 422),
     (mozjs_sym_import, 1333), (mozjs_sym_import_statement, 422),
     (mozjs_sym_statement, 457), (mozjs_sym_expression_statement, 422),
     (mozjs_sym_variable_declaration, 427), (mozjs_sym_lexical_declaration, 427),
     (mozjs_sym_using_declaration, 427), (mozjs_sym_statement_block, 422),
     (mozjs_sym_if_statement, 422), (mozjs_sym_switch_statement, 422),
     (mozjs_sym_for_statement, 422), (mozjs_sym_for_in_statement, 422),
     (mozjs_sym_while_statement, 422), (mozjs_sym_do_statement, 422),
     (mozjs_sym_try_statement, 422), (mozjs_sym_with_statement, 422),
     (mozjs_sym_break_statement, 422), (mozjs_sym_continue_statement, 422),
     (mozjs_sym_debugger_statement, 422), (mozjs_sym_return_statement, 422),
     (mozjs_sym_throw_statement, 422), (mozjs_sym_empty_statement, 422),
     (mozjs_sym_labeled_statement, 422), (mozjs_sym_parenthesized_expression, 556),
     (mozjs_sym_expression, 823), (mozjs_sym_primary_expression, 693),
     (mozjs_sym_yield_expression, 743), (mozjs_sym_object, 793),
     (mozjs_sym_object_pattern, 1845), (mozjs_sym_array, 793),
     (mozjs_sym_array_pattern, 1845), (mozjs_sym_jsx_element, 743),
     (mozjs_sym_jsx_opening_element, 1158), (mozjs_sym_jsx_self_closing_element, 743),
     (mozjs_sym_class, 793), (mozjs_sym_class_declaration, 427),
     (mozjs_sym_function_expression, 793), (mozjs_sym_function_declaration, 427),
     (mozjs_sym_generator_function, 793), (mozjs_sym_generator_function_declaration, 427),
     (mozjs_sym_arrow_function, 793), (mozjs_sym_call_expression, 793),
     (mozjs_sym_new_expression, 692), (mozjs_sym_await_expression, 743),
     (mozjs_sym_member_expression, 556), (mozjs_sym_subscript_expression, 556),
     (mozjs_sym_assignment_expression, 743), (mozjs_sym__augmented_assignment_lhs, 1146),
     (mozjs_sym_augmented_assignment_expression, 743), (mozjs_sym__destructuring_pattern, 1845),
     (mozjs_sym_ternary_expression, 743), (mozjs_sym_binary_expression, 743),
     (mozjs_sym_unary_expression, 743), (mozjs_sym_update_expression, 743),
     (mozjs_sym_sequence_expression, 1743), (mozjs_sym_string, 793),
     (mozjs_sym_template_string, 793), (mozjs_sym_regex, 793),
     (mozjs_sym_meta_property, 793), (mozjs_sym_decorator, 1112),
     (mozjs_sym_formal_parameters, 1847), (mozjs_aux_sym_export_statement_repeat1, 1308),
     (mozjs_sym_identifier, 503), (mozjs_anon_sym_export, 505),
     (mozjs_anon_sym_LBRACE, 507), (mozjs_anon_sym_import, 17),
     (mozjs_anon_sym_with, 509), (mozjs_anon_sym_var, 21),
     (mozjs_anon_sym_let, 511), (mozjs_anon_sym_const, 25),
     (mozjs_anon_sym_using, 27), (mozjs_anon_sym_await, 513),
     (mozjs_anon_sym_if, 515), (mozjs_anon_sym_switch, 33),
     (mozjs_anon_sym_for, 517), (mozjs_anon_sym_LPAREN, 37),
     (mozjs_anon_sym_SEMI, 39), (mozjs_anon_sym_while, 519),
     (mozjs_anon_sym_do, 43), (mozjs_anon_sym_try, 45),
     (mozjs_anon_sym_break, 47), (mozjs_anon_sym_continue, 49),
     (mozjs_anon_sym_debugger, 51), (mozjs_anon_sym_return, 53),
     (mozjs_anon_sym_throw, 55), (mozjs_anon_sym_yield, 57),
     (mozjs_anon_sym_LBRACK, 59), (mozjs_anon_sym_LT, 61),
     (mozjs_anon_sym_DQUOTE, 63), (mozjs_anon_sym_SQUOTE, 65),
     (mozjs_anon_sym_class, 521), (mozjs_anon_sym_async, 523),
     (mozjs_anon_sym_function, 525), (mozjs_anon_sym_new, 73),
     (mozjs_anon_sym_PLUS, 75), (mozjs_anon_sym_DASH, 75),
     (mozjs_anon_sym_SLASH, 77), (mozjs_anon_sym_BANG, 79),
     (mozjs_anon_sym_TILDE, 79), (mozjs_anon_sym_typeof, 75),
     (mozjs_anon_sym_void, 75), (mozjs_anon_sym_delete, 75),
     (mozjs_anon_sym_PLUS_PLUS, 81), (mozjs_anon_sym_DASH_DASH, 81),
     (mozjs_sym_comment, 5), (mozjs_anon_sym_BQUOTE, 83),
     (mozjs_sym_number, 85), (mozjs_sym_private_property_identifier, 87),
     (mozjs_sym_this, 89), (mozjs_sym_super, 89),
     (mozjs_sym_true, 89), (mozjs_sym_false, 89),
     (mozjs_sym_null, 89), (mozjs_sym_undefined, 91),
     (mozjs_anon_sym_AT, 93), (mozjs_anon_sym_static, 527),
     (mozjs_anon_sym_get, 527), (mozjs_anon_sym_set, 527),
     (mozjs_sym_preproc, 97), (mozjs_sym_html_comment, 5)]"

definition mozjs_parse_row_54 :: "(TSSymbol \<times> nat) list" where
  "mozjs_parse_row_54 =
    [(mozjs_sym_export_statement, 422), (mozjs_sym_declaration, 422),
     (mozjs_sym_import, 1333), (mozjs_sym_import_statement, 422),
     (mozjs_sym_statement, 468), (mozjs_sym_expression_statement, 422),
     (mozjs_sym_variable_declaration, 427), (mozjs_sym_lexical_declaration, 427),
     (mozjs_sym_using_declaration, 427), (mozjs_sym_statement_block, 422),
     (mozjs_sym_if_statement, 422), (mozjs_sym_switch_statement, 422),
     (mozjs_sym_for_statement, 422), (mozjs_sym_for_in_statement, 422),
     (mozjs_sym_while_statement, 422), (mozjs_sym_do_statement, 422),
     (mozjs_sym_try_statement, 422), (mozjs_sym_with_statement, 422),
     (mozjs_sym_break_statement, 422), (mozjs_sym_continue_statement, 422),
     (mozjs_sym_debugger_statement, 422), (mozjs_sym_return_statement, 422),
     (mozjs_sym_throw_statement, 422), (mozjs_sym_empty_statement, 422),
     (mozjs_sym_labeled_statement, 422), (mozjs_sym_parenthesized_expression, 556),
     (mozjs_sym_expression, 823), (mozjs_sym_primary_expression, 693),
     (mozjs_sym_yield_expression, 743), (mozjs_sym_object, 793),
     (mozjs_sym_object_pattern, 1845), (mozjs_sym_array, 793),
     (mozjs_sym_array_pattern, 1845), (mozjs_sym_jsx_element, 743),
     (mozjs_sym_jsx_opening_element, 1158), (mozjs_sym_jsx_self_closing_element, 743),
     (mozjs_sym_class, 793), (mozjs_sym_class_declaration, 427),
     (mozjs_sym_function_expression, 793), (mozjs_sym_function_declaration, 427),
     (mozjs_sym_generator_function, 793), (mozjs_sym_generator_function_declaration, 427),
     (mozjs_sym_arrow_function, 793), (mozjs_sym_call_expression, 793),
     (mozjs_sym_new_expression, 692), (mozjs_sym_await_expression, 743),
     (mozjs_sym_member_expression, 556), (mozjs_sym_subscript_expression, 556),
     (mozjs_sym_assignment_expression, 743), (mozjs_sym__augmented_assignment_lhs, 1146),
     (mozjs_sym_augmented_assignment_expression, 743), (mozjs_sym__destructuring_pattern, 1845),
     (mozjs_sym_ternary_expression, 743), (mozjs_sym_binary_expression, 743),
     (mozjs_sym_unary_expression, 743), (mozjs_sym_update_expression, 743),
     (mozjs_sym_sequence_expression, 1743), (mozjs_sym_string, 793),
     (mozjs_sym_template_string, 793), (mozjs_sym_regex, 793),
     (mozjs_sym_meta_property, 793), (mozjs_sym_decorator, 1112),
     (mozjs_sym_formal_parameters, 1847), (mozjs_aux_sym_export_statement_repeat1, 1308),
     (mozjs_sym_identifier, 503), (mozjs_anon_sym_export, 505),
     (mozjs_anon_sym_LBRACE, 507), (mozjs_anon_sym_import, 17),
     (mozjs_anon_sym_with, 509), (mozjs_anon_sym_var, 21),
     (mozjs_anon_sym_let, 511), (mozjs_anon_sym_const, 25),
     (mozjs_anon_sym_using, 27), (mozjs_anon_sym_await, 513),
     (mozjs_anon_sym_if, 515), (mozjs_anon_sym_switch, 33),
     (mozjs_anon_sym_for, 517), (mozjs_anon_sym_LPAREN, 37),
     (mozjs_anon_sym_SEMI, 39), (mozjs_anon_sym_while, 519),
     (mozjs_anon_sym_do, 43), (mozjs_anon_sym_try, 45),
     (mozjs_anon_sym_break, 47), (mozjs_anon_sym_continue, 49),
     (mozjs_anon_sym_debugger, 51), (mozjs_anon_sym_return, 53),
     (mozjs_anon_sym_throw, 55), (mozjs_anon_sym_yield, 57),
     (mozjs_anon_sym_LBRACK, 59), (mozjs_anon_sym_LT, 61),
     (mozjs_anon_sym_DQUOTE, 63), (mozjs_anon_sym_SQUOTE, 65),
     (mozjs_anon_sym_class, 521), (mozjs_anon_sym_async, 523),
     (mozjs_anon_sym_function, 525), (mozjs_anon_sym_new, 73),
     (mozjs_anon_sym_PLUS, 75), (mozjs_anon_sym_DASH, 75),
     (mozjs_anon_sym_SLASH, 77), (mozjs_anon_sym_BANG, 79),
     (mozjs_anon_sym_TILDE, 79), (mozjs_anon_sym_typeof, 75),
     (mozjs_anon_sym_void, 75), (mozjs_anon_sym_delete, 75),
     (mozjs_anon_sym_PLUS_PLUS, 81), (mozjs_anon_sym_DASH_DASH, 81),
     (mozjs_sym_comment, 5), (mozjs_anon_sym_BQUOTE, 83),
     (mozjs_sym_number, 85), (mozjs_sym_private_property_identifier, 87),
     (mozjs_sym_this, 89), (mozjs_sym_super, 89),
     (mozjs_sym_true, 89), (mozjs_sym_false, 89),
     (mozjs_sym_null, 89), (mozjs_sym_undefined, 91),
     (mozjs_anon_sym_AT, 93), (mozjs_anon_sym_static, 527),
     (mozjs_anon_sym_get, 527), (mozjs_anon_sym_set, 527),
     (mozjs_sym_preproc, 97), (mozjs_sym_html_comment, 5)]"

definition mozjs_parse_row_55 :: "(TSSymbol \<times> nat) list" where
  "mozjs_parse_row_55 =
    [(mozjs_sym_export_statement, 422), (mozjs_sym_declaration, 422),
     (mozjs_sym_import, 1333), (mozjs_sym_import_statement, 422),
     (mozjs_sym_statement, 469), (mozjs_sym_expression_statement, 422),
     (mozjs_sym_variable_declaration, 427), (mozjs_sym_lexical_declaration, 427),
     (mozjs_sym_using_declaration, 427), (mozjs_sym_statement_block, 422),
     (mozjs_sym_if_statement, 422), (mozjs_sym_switch_statement, 422),
     (mozjs_sym_for_statement, 422), (mozjs_sym_for_in_statement, 422),
     (mozjs_sym_while_statement, 422), (mozjs_sym_do_statement, 422),
     (mozjs_sym_try_statement, 422), (mozjs_sym_with_statement, 422),
     (mozjs_sym_break_statement, 422), (mozjs_sym_continue_statement, 422),
     (mozjs_sym_debugger_statement, 422), (mozjs_sym_return_statement, 422),
     (mozjs_sym_throw_statement, 422), (mozjs_sym_empty_statement, 422),
     (mozjs_sym_labeled_statement, 422), (mozjs_sym_parenthesized_expression, 556),
     (mozjs_sym_expression, 823), (mozjs_sym_primary_expression, 693),
     (mozjs_sym_yield_expression, 743), (mozjs_sym_object, 793),
     (mozjs_sym_object_pattern, 1845), (mozjs_sym_array, 793),
     (mozjs_sym_array_pattern, 1845), (mozjs_sym_jsx_element, 743),
     (mozjs_sym_jsx_opening_element, 1158), (mozjs_sym_jsx_self_closing_element, 743),
     (mozjs_sym_class, 793), (mozjs_sym_class_declaration, 427),
     (mozjs_sym_function_expression, 793), (mozjs_sym_function_declaration, 427),
     (mozjs_sym_generator_function, 793), (mozjs_sym_generator_function_declaration, 427),
     (mozjs_sym_arrow_function, 793), (mozjs_sym_call_expression, 793),
     (mozjs_sym_new_expression, 692), (mozjs_sym_await_expression, 743),
     (mozjs_sym_member_expression, 556), (mozjs_sym_subscript_expression, 556),
     (mozjs_sym_assignment_expression, 743), (mozjs_sym__augmented_assignment_lhs, 1146),
     (mozjs_sym_augmented_assignment_expression, 743), (mozjs_sym__destructuring_pattern, 1845),
     (mozjs_sym_ternary_expression, 743), (mozjs_sym_binary_expression, 743),
     (mozjs_sym_unary_expression, 743), (mozjs_sym_update_expression, 743),
     (mozjs_sym_sequence_expression, 1743), (mozjs_sym_string, 793),
     (mozjs_sym_template_string, 793), (mozjs_sym_regex, 793),
     (mozjs_sym_meta_property, 793), (mozjs_sym_decorator, 1112),
     (mozjs_sym_formal_parameters, 1847), (mozjs_aux_sym_export_statement_repeat1, 1308),
     (mozjs_sym_identifier, 503), (mozjs_anon_sym_export, 505),
     (mozjs_anon_sym_LBRACE, 507), (mozjs_anon_sym_import, 17),
     (mozjs_anon_sym_with, 509), (mozjs_anon_sym_var, 21),
     (mozjs_anon_sym_let, 511), (mozjs_anon_sym_const, 25),
     (mozjs_anon_sym_using, 27), (mozjs_anon_sym_await, 513),
     (mozjs_anon_sym_if, 515), (mozjs_anon_sym_switch, 33),
     (mozjs_anon_sym_for, 517), (mozjs_anon_sym_LPAREN, 37),
     (mozjs_anon_sym_SEMI, 39), (mozjs_anon_sym_while, 519),
     (mozjs_anon_sym_do, 43), (mozjs_anon_sym_try, 45),
     (mozjs_anon_sym_break, 47), (mozjs_anon_sym_continue, 49),
     (mozjs_anon_sym_debugger, 51), (mozjs_anon_sym_return, 53),
     (mozjs_anon_sym_throw, 55), (mozjs_anon_sym_yield, 57),
     (mozjs_anon_sym_LBRACK, 59), (mozjs_anon_sym_LT, 61),
     (mozjs_anon_sym_DQUOTE, 63), (mozjs_anon_sym_SQUOTE, 65),
     (mozjs_anon_sym_class, 521), (mozjs_anon_sym_async, 523),
     (mozjs_anon_sym_function, 525), (mozjs_anon_sym_new, 73),
     (mozjs_anon_sym_PLUS, 75), (mozjs_anon_sym_DASH, 75),
     (mozjs_anon_sym_SLASH, 77), (mozjs_anon_sym_BANG, 79),
     (mozjs_anon_sym_TILDE, 79), (mozjs_anon_sym_typeof, 75),
     (mozjs_anon_sym_void, 75), (mozjs_anon_sym_delete, 75),
     (mozjs_anon_sym_PLUS_PLUS, 81), (mozjs_anon_sym_DASH_DASH, 81),
     (mozjs_sym_comment, 5), (mozjs_anon_sym_BQUOTE, 83),
     (mozjs_sym_number, 85), (mozjs_sym_private_property_identifier, 87),
     (mozjs_sym_this, 89), (mozjs_sym_super, 89),
     (mozjs_sym_true, 89), (mozjs_sym_false, 89),
     (mozjs_sym_null, 89), (mozjs_sym_undefined, 91),
     (mozjs_anon_sym_AT, 93), (mozjs_anon_sym_static, 527),
     (mozjs_anon_sym_get, 527), (mozjs_anon_sym_set, 527),
     (mozjs_sym_preproc, 97), (mozjs_sym_html_comment, 5)]"

definition mozjs_parse_row_56 :: "(TSSymbol \<times> nat) list" where
  "mozjs_parse_row_56 =
    [(mozjs_sym_export_statement, 422), (mozjs_sym_declaration, 422),
     (mozjs_sym_import, 1333), (mozjs_sym_import_statement, 422),
     (mozjs_sym_statement, 471), (mozjs_sym_expression_statement, 422),
     (mozjs_sym_variable_declaration, 427), (mozjs_sym_lexical_declaration, 427),
     (mozjs_sym_using_declaration, 427), (mozjs_sym_statement_block, 422),
     (mozjs_sym_if_statement, 422), (mozjs_sym_switch_statement, 422),
     (mozjs_sym_for_statement, 422), (mozjs_sym_for_in_statement, 422),
     (mozjs_sym_while_statement, 422), (mozjs_sym_do_statement, 422),
     (mozjs_sym_try_statement, 422), (mozjs_sym_with_statement, 422),
     (mozjs_sym_break_statement, 422), (mozjs_sym_continue_statement, 422),
     (mozjs_sym_debugger_statement, 422), (mozjs_sym_return_statement, 422),
     (mozjs_sym_throw_statement, 422), (mozjs_sym_empty_statement, 422),
     (mozjs_sym_labeled_statement, 422), (mozjs_sym_parenthesized_expression, 556),
     (mozjs_sym_expression, 823), (mozjs_sym_primary_expression, 693),
     (mozjs_sym_yield_expression, 743), (mozjs_sym_object, 793),
     (mozjs_sym_object_pattern, 1845), (mozjs_sym_array, 793),
     (mozjs_sym_array_pattern, 1845), (mozjs_sym_jsx_element, 743),
     (mozjs_sym_jsx_opening_element, 1158), (mozjs_sym_jsx_self_closing_element, 743),
     (mozjs_sym_class, 793), (mozjs_sym_class_declaration, 427),
     (mozjs_sym_function_expression, 793), (mozjs_sym_function_declaration, 427),
     (mozjs_sym_generator_function, 793), (mozjs_sym_generator_function_declaration, 427),
     (mozjs_sym_arrow_function, 793), (mozjs_sym_call_expression, 793),
     (mozjs_sym_new_expression, 692), (mozjs_sym_await_expression, 743),
     (mozjs_sym_member_expression, 556), (mozjs_sym_subscript_expression, 556),
     (mozjs_sym_assignment_expression, 743), (mozjs_sym__augmented_assignment_lhs, 1146),
     (mozjs_sym_augmented_assignment_expression, 743), (mozjs_sym__destructuring_pattern, 1845),
     (mozjs_sym_ternary_expression, 743), (mozjs_sym_binary_expression, 743),
     (mozjs_sym_unary_expression, 743), (mozjs_sym_update_expression, 743),
     (mozjs_sym_sequence_expression, 1743), (mozjs_sym_string, 793),
     (mozjs_sym_template_string, 793), (mozjs_sym_regex, 793),
     (mozjs_sym_meta_property, 793), (mozjs_sym_decorator, 1112),
     (mozjs_sym_formal_parameters, 1847), (mozjs_aux_sym_export_statement_repeat1, 1308),
     (mozjs_sym_identifier, 503), (mozjs_anon_sym_export, 505),
     (mozjs_anon_sym_LBRACE, 507), (mozjs_anon_sym_import, 17),
     (mozjs_anon_sym_with, 509), (mozjs_anon_sym_var, 21),
     (mozjs_anon_sym_let, 511), (mozjs_anon_sym_const, 25),
     (mozjs_anon_sym_using, 27), (mozjs_anon_sym_await, 513),
     (mozjs_anon_sym_if, 515), (mozjs_anon_sym_switch, 33),
     (mozjs_anon_sym_for, 517), (mozjs_anon_sym_LPAREN, 37),
     (mozjs_anon_sym_SEMI, 39), (mozjs_anon_sym_while, 519),
     (mozjs_anon_sym_do, 43), (mozjs_anon_sym_try, 45),
     (mozjs_anon_sym_break, 47), (mozjs_anon_sym_continue, 49),
     (mozjs_anon_sym_debugger, 51), (mozjs_anon_sym_return, 53),
     (mozjs_anon_sym_throw, 55), (mozjs_anon_sym_yield, 57),
     (mozjs_anon_sym_LBRACK, 59), (mozjs_anon_sym_LT, 61),
     (mozjs_anon_sym_DQUOTE, 63), (mozjs_anon_sym_SQUOTE, 65),
     (mozjs_anon_sym_class, 521), (mozjs_anon_sym_async, 523),
     (mozjs_anon_sym_function, 525), (mozjs_anon_sym_new, 73),
     (mozjs_anon_sym_PLUS, 75), (mozjs_anon_sym_DASH, 75),
     (mozjs_anon_sym_SLASH, 77), (mozjs_anon_sym_BANG, 79),
     (mozjs_anon_sym_TILDE, 79), (mozjs_anon_sym_typeof, 75),
     (mozjs_anon_sym_void, 75), (mozjs_anon_sym_delete, 75),
     (mozjs_anon_sym_PLUS_PLUS, 81), (mozjs_anon_sym_DASH_DASH, 81),
     (mozjs_sym_comment, 5), (mozjs_anon_sym_BQUOTE, 83),
     (mozjs_sym_number, 85), (mozjs_sym_private_property_identifier, 87),
     (mozjs_sym_this, 89), (mozjs_sym_super, 89),
     (mozjs_sym_true, 89), (mozjs_sym_false, 89),
     (mozjs_sym_null, 89), (mozjs_sym_undefined, 91),
     (mozjs_anon_sym_AT, 93), (mozjs_anon_sym_static, 527),
     (mozjs_anon_sym_get, 527), (mozjs_anon_sym_set, 527),
     (mozjs_sym_preproc, 97), (mozjs_sym_html_comment, 5)]"

definition mozjs_parse_row_57 :: "(TSSymbol \<times> nat) list" where
  "mozjs_parse_row_57 =
    [(mozjs_sym_export_statement, 422), (mozjs_sym_declaration, 422),
     (mozjs_sym_import, 1333), (mozjs_sym_import_statement, 422),
     (mozjs_sym_statement, 475), (mozjs_sym_expression_statement, 422),
     (mozjs_sym_variable_declaration, 427), (mozjs_sym_lexical_declaration, 427),
     (mozjs_sym_using_declaration, 427), (mozjs_sym_statement_block, 422),
     (mozjs_sym_if_statement, 422), (mozjs_sym_switch_statement, 422),
     (mozjs_sym_for_statement, 422), (mozjs_sym_for_in_statement, 422),
     (mozjs_sym_while_statement, 422), (mozjs_sym_do_statement, 422),
     (mozjs_sym_try_statement, 422), (mozjs_sym_with_statement, 422),
     (mozjs_sym_break_statement, 422), (mozjs_sym_continue_statement, 422),
     (mozjs_sym_debugger_statement, 422), (mozjs_sym_return_statement, 422),
     (mozjs_sym_throw_statement, 422), (mozjs_sym_empty_statement, 422),
     (mozjs_sym_labeled_statement, 422), (mozjs_sym_parenthesized_expression, 556),
     (mozjs_sym_expression, 823), (mozjs_sym_primary_expression, 693),
     (mozjs_sym_yield_expression, 743), (mozjs_sym_object, 793),
     (mozjs_sym_object_pattern, 1845), (mozjs_sym_array, 793),
     (mozjs_sym_array_pattern, 1845), (mozjs_sym_jsx_element, 743),
     (mozjs_sym_jsx_opening_element, 1158), (mozjs_sym_jsx_self_closing_element, 743),
     (mozjs_sym_class, 793), (mozjs_sym_class_declaration, 427),
     (mozjs_sym_function_expression, 793), (mozjs_sym_function_declaration, 427),
     (mozjs_sym_generator_function, 793), (mozjs_sym_generator_function_declaration, 427),
     (mozjs_sym_arrow_function, 793), (mozjs_sym_call_expression, 793),
     (mozjs_sym_new_expression, 692), (mozjs_sym_await_expression, 743),
     (mozjs_sym_member_expression, 556), (mozjs_sym_subscript_expression, 556),
     (mozjs_sym_assignment_expression, 743), (mozjs_sym__augmented_assignment_lhs, 1146),
     (mozjs_sym_augmented_assignment_expression, 743), (mozjs_sym__destructuring_pattern, 1845),
     (mozjs_sym_ternary_expression, 743), (mozjs_sym_binary_expression, 743),
     (mozjs_sym_unary_expression, 743), (mozjs_sym_update_expression, 743),
     (mozjs_sym_sequence_expression, 1743), (mozjs_sym_string, 793),
     (mozjs_sym_template_string, 793), (mozjs_sym_regex, 793),
     (mozjs_sym_meta_property, 793), (mozjs_sym_decorator, 1112),
     (mozjs_sym_formal_parameters, 1847), (mozjs_aux_sym_export_statement_repeat1, 1308),
     (mozjs_sym_identifier, 503), (mozjs_anon_sym_export, 505),
     (mozjs_anon_sym_LBRACE, 507), (mozjs_anon_sym_import, 17),
     (mozjs_anon_sym_with, 509), (mozjs_anon_sym_var, 21),
     (mozjs_anon_sym_let, 511), (mozjs_anon_sym_const, 25),
     (mozjs_anon_sym_using, 27), (mozjs_anon_sym_await, 513),
     (mozjs_anon_sym_if, 515), (mozjs_anon_sym_switch, 33),
     (mozjs_anon_sym_for, 517), (mozjs_anon_sym_LPAREN, 37),
     (mozjs_anon_sym_SEMI, 39), (mozjs_anon_sym_while, 519),
     (mozjs_anon_sym_do, 43), (mozjs_anon_sym_try, 45),
     (mozjs_anon_sym_break, 47), (mozjs_anon_sym_continue, 49),
     (mozjs_anon_sym_debugger, 51), (mozjs_anon_sym_return, 53),
     (mozjs_anon_sym_throw, 55), (mozjs_anon_sym_yield, 57),
     (mozjs_anon_sym_LBRACK, 59), (mozjs_anon_sym_LT, 61),
     (mozjs_anon_sym_DQUOTE, 63), (mozjs_anon_sym_SQUOTE, 65),
     (mozjs_anon_sym_class, 521), (mozjs_anon_sym_async, 523),
     (mozjs_anon_sym_function, 525), (mozjs_anon_sym_new, 73),
     (mozjs_anon_sym_PLUS, 75), (mozjs_anon_sym_DASH, 75),
     (mozjs_anon_sym_SLASH, 77), (mozjs_anon_sym_BANG, 79),
     (mozjs_anon_sym_TILDE, 79), (mozjs_anon_sym_typeof, 75),
     (mozjs_anon_sym_void, 75), (mozjs_anon_sym_delete, 75),
     (mozjs_anon_sym_PLUS_PLUS, 81), (mozjs_anon_sym_DASH_DASH, 81),
     (mozjs_sym_comment, 5), (mozjs_anon_sym_BQUOTE, 83),
     (mozjs_sym_number, 85), (mozjs_sym_private_property_identifier, 87),
     (mozjs_sym_this, 89), (mozjs_sym_super, 89),
     (mozjs_sym_true, 89), (mozjs_sym_false, 89),
     (mozjs_sym_null, 89), (mozjs_sym_undefined, 91),
     (mozjs_anon_sym_AT, 93), (mozjs_anon_sym_static, 527),
     (mozjs_anon_sym_get, 527), (mozjs_anon_sym_set, 527),
     (mozjs_sym_preproc, 97), (mozjs_sym_html_comment, 5)]"

definition mozjs_parse_row_58 :: "(TSSymbol \<times> nat) list" where
  "mozjs_parse_row_58 =
    [(mozjs_sym_export_statement, 422), (mozjs_sym_declaration, 422),
     (mozjs_sym_import, 1333), (mozjs_sym_import_statement, 422),
     (mozjs_sym_statement, 476), (mozjs_sym_expression_statement, 422),
     (mozjs_sym_variable_declaration, 427), (mozjs_sym_lexical_declaration, 427),
     (mozjs_sym_using_declaration, 427), (mozjs_sym_statement_block, 422),
     (mozjs_sym_if_statement, 422), (mozjs_sym_switch_statement, 422),
     (mozjs_sym_for_statement, 422), (mozjs_sym_for_in_statement, 422),
     (mozjs_sym_while_statement, 422), (mozjs_sym_do_statement, 422),
     (mozjs_sym_try_statement, 422), (mozjs_sym_with_statement, 422),
     (mozjs_sym_break_statement, 422), (mozjs_sym_continue_statement, 422),
     (mozjs_sym_debugger_statement, 422), (mozjs_sym_return_statement, 422),
     (mozjs_sym_throw_statement, 422), (mozjs_sym_empty_statement, 422),
     (mozjs_sym_labeled_statement, 422), (mozjs_sym_parenthesized_expression, 556),
     (mozjs_sym_expression, 823), (mozjs_sym_primary_expression, 693),
     (mozjs_sym_yield_expression, 743), (mozjs_sym_object, 793),
     (mozjs_sym_object_pattern, 1845), (mozjs_sym_array, 793),
     (mozjs_sym_array_pattern, 1845), (mozjs_sym_jsx_element, 743),
     (mozjs_sym_jsx_opening_element, 1158), (mozjs_sym_jsx_self_closing_element, 743),
     (mozjs_sym_class, 793), (mozjs_sym_class_declaration, 427),
     (mozjs_sym_function_expression, 793), (mozjs_sym_function_declaration, 427),
     (mozjs_sym_generator_function, 793), (mozjs_sym_generator_function_declaration, 427),
     (mozjs_sym_arrow_function, 793), (mozjs_sym_call_expression, 793),
     (mozjs_sym_new_expression, 692), (mozjs_sym_await_expression, 743),
     (mozjs_sym_member_expression, 556), (mozjs_sym_subscript_expression, 556),
     (mozjs_sym_assignment_expression, 743), (mozjs_sym__augmented_assignment_lhs, 1146),
     (mozjs_sym_augmented_assignment_expression, 743), (mozjs_sym__destructuring_pattern, 1845),
     (mozjs_sym_ternary_expression, 743), (mozjs_sym_binary_expression, 743),
     (mozjs_sym_unary_expression, 743), (mozjs_sym_update_expression, 743),
     (mozjs_sym_sequence_expression, 1743), (mozjs_sym_string, 793),
     (mozjs_sym_template_string, 793), (mozjs_sym_regex, 793),
     (mozjs_sym_meta_property, 793), (mozjs_sym_decorator, 1112),
     (mozjs_sym_formal_parameters, 1847), (mozjs_aux_sym_export_statement_repeat1, 1308),
     (mozjs_sym_identifier, 503), (mozjs_anon_sym_export, 505),
     (mozjs_anon_sym_LBRACE, 507), (mozjs_anon_sym_import, 17),
     (mozjs_anon_sym_with, 509), (mozjs_anon_sym_var, 21),
     (mozjs_anon_sym_let, 511), (mozjs_anon_sym_const, 25),
     (mozjs_anon_sym_using, 27), (mozjs_anon_sym_await, 513),
     (mozjs_anon_sym_if, 515), (mozjs_anon_sym_switch, 33),
     (mozjs_anon_sym_for, 517), (mozjs_anon_sym_LPAREN, 37),
     (mozjs_anon_sym_SEMI, 39), (mozjs_anon_sym_while, 519),
     (mozjs_anon_sym_do, 43), (mozjs_anon_sym_try, 45),
     (mozjs_anon_sym_break, 47), (mozjs_anon_sym_continue, 49),
     (mozjs_anon_sym_debugger, 51), (mozjs_anon_sym_return, 53),
     (mozjs_anon_sym_throw, 55), (mozjs_anon_sym_yield, 57),
     (mozjs_anon_sym_LBRACK, 59), (mozjs_anon_sym_LT, 61),
     (mozjs_anon_sym_DQUOTE, 63), (mozjs_anon_sym_SQUOTE, 65),
     (mozjs_anon_sym_class, 521), (mozjs_anon_sym_async, 523),
     (mozjs_anon_sym_function, 525), (mozjs_anon_sym_new, 73),
     (mozjs_anon_sym_PLUS, 75), (mozjs_anon_sym_DASH, 75),
     (mozjs_anon_sym_SLASH, 77), (mozjs_anon_sym_BANG, 79),
     (mozjs_anon_sym_TILDE, 79), (mozjs_anon_sym_typeof, 75),
     (mozjs_anon_sym_void, 75), (mozjs_anon_sym_delete, 75),
     (mozjs_anon_sym_PLUS_PLUS, 81), (mozjs_anon_sym_DASH_DASH, 81),
     (mozjs_sym_comment, 5), (mozjs_anon_sym_BQUOTE, 83),
     (mozjs_sym_number, 85), (mozjs_sym_private_property_identifier, 87),
     (mozjs_sym_this, 89), (mozjs_sym_super, 89),
     (mozjs_sym_true, 89), (mozjs_sym_false, 89),
     (mozjs_sym_null, 89), (mozjs_sym_undefined, 91),
     (mozjs_anon_sym_AT, 93), (mozjs_anon_sym_static, 527),
     (mozjs_anon_sym_get, 527), (mozjs_anon_sym_set, 527),
     (mozjs_sym_preproc, 97), (mozjs_sym_html_comment, 5)]"

definition mozjs_parse_row_59 :: "(TSSymbol \<times> nat) list" where
  "mozjs_parse_row_59 =
    [(mozjs_sym_export_statement, 422), (mozjs_sym_declaration, 422),
     (mozjs_sym_import, 1333), (mozjs_sym_import_statement, 422),
     (mozjs_sym_statement, 477), (mozjs_sym_expression_statement, 422),
     (mozjs_sym_variable_declaration, 427), (mozjs_sym_lexical_declaration, 427),
     (mozjs_sym_using_declaration, 427), (mozjs_sym_statement_block, 422),
     (mozjs_sym_if_statement, 422), (mozjs_sym_switch_statement, 422),
     (mozjs_sym_for_statement, 422), (mozjs_sym_for_in_statement, 422),
     (mozjs_sym_while_statement, 422), (mozjs_sym_do_statement, 422),
     (mozjs_sym_try_statement, 422), (mozjs_sym_with_statement, 422),
     (mozjs_sym_break_statement, 422), (mozjs_sym_continue_statement, 422),
     (mozjs_sym_debugger_statement, 422), (mozjs_sym_return_statement, 422),
     (mozjs_sym_throw_statement, 422), (mozjs_sym_empty_statement, 422),
     (mozjs_sym_labeled_statement, 422), (mozjs_sym_parenthesized_expression, 556),
     (mozjs_sym_expression, 823), (mozjs_sym_primary_expression, 693),
     (mozjs_sym_yield_expression, 743), (mozjs_sym_object, 793),
     (mozjs_sym_object_pattern, 1845), (mozjs_sym_array, 793),
     (mozjs_sym_array_pattern, 1845), (mozjs_sym_jsx_element, 743),
     (mozjs_sym_jsx_opening_element, 1158), (mozjs_sym_jsx_self_closing_element, 743),
     (mozjs_sym_class, 793), (mozjs_sym_class_declaration, 427),
     (mozjs_sym_function_expression, 793), (mozjs_sym_function_declaration, 427),
     (mozjs_sym_generator_function, 793), (mozjs_sym_generator_function_declaration, 427),
     (mozjs_sym_arrow_function, 793), (mozjs_sym_call_expression, 793),
     (mozjs_sym_new_expression, 692), (mozjs_sym_await_expression, 743),
     (mozjs_sym_member_expression, 556), (mozjs_sym_subscript_expression, 556),
     (mozjs_sym_assignment_expression, 743), (mozjs_sym__augmented_assignment_lhs, 1146),
     (mozjs_sym_augmented_assignment_expression, 743), (mozjs_sym__destructuring_pattern, 1845),
     (mozjs_sym_ternary_expression, 743), (mozjs_sym_binary_expression, 743),
     (mozjs_sym_unary_expression, 743), (mozjs_sym_update_expression, 743),
     (mozjs_sym_sequence_expression, 1743), (mozjs_sym_string, 793),
     (mozjs_sym_template_string, 793), (mozjs_sym_regex, 793),
     (mozjs_sym_meta_property, 793), (mozjs_sym_decorator, 1112),
     (mozjs_sym_formal_parameters, 1847), (mozjs_aux_sym_export_statement_repeat1, 1308),
     (mozjs_sym_identifier, 503), (mozjs_anon_sym_export, 505),
     (mozjs_anon_sym_LBRACE, 507), (mozjs_anon_sym_import, 17),
     (mozjs_anon_sym_with, 509), (mozjs_anon_sym_var, 21),
     (mozjs_anon_sym_let, 511), (mozjs_anon_sym_const, 25),
     (mozjs_anon_sym_using, 27), (mozjs_anon_sym_await, 513),
     (mozjs_anon_sym_if, 515), (mozjs_anon_sym_switch, 33),
     (mozjs_anon_sym_for, 517), (mozjs_anon_sym_LPAREN, 37),
     (mozjs_anon_sym_SEMI, 39), (mozjs_anon_sym_while, 519),
     (mozjs_anon_sym_do, 43), (mozjs_anon_sym_try, 45),
     (mozjs_anon_sym_break, 47), (mozjs_anon_sym_continue, 49),
     (mozjs_anon_sym_debugger, 51), (mozjs_anon_sym_return, 53),
     (mozjs_anon_sym_throw, 55), (mozjs_anon_sym_yield, 57),
     (mozjs_anon_sym_LBRACK, 59), (mozjs_anon_sym_LT, 61),
     (mozjs_anon_sym_DQUOTE, 63), (mozjs_anon_sym_SQUOTE, 65),
     (mozjs_anon_sym_class, 521), (mozjs_anon_sym_async, 523),
     (mozjs_anon_sym_function, 525), (mozjs_anon_sym_new, 73),
     (mozjs_anon_sym_PLUS, 75), (mozjs_anon_sym_DASH, 75),
     (mozjs_anon_sym_SLASH, 77), (mozjs_anon_sym_BANG, 79),
     (mozjs_anon_sym_TILDE, 79), (mozjs_anon_sym_typeof, 75),
     (mozjs_anon_sym_void, 75), (mozjs_anon_sym_delete, 75),
     (mozjs_anon_sym_PLUS_PLUS, 81), (mozjs_anon_sym_DASH_DASH, 81),
     (mozjs_sym_comment, 5), (mozjs_anon_sym_BQUOTE, 83),
     (mozjs_sym_number, 85), (mozjs_sym_private_property_identifier, 87),
     (mozjs_sym_this, 89), (mozjs_sym_super, 89),
     (mozjs_sym_true, 89), (mozjs_sym_false, 89),
     (mozjs_sym_null, 89), (mozjs_sym_undefined, 91),
     (mozjs_anon_sym_AT, 93), (mozjs_anon_sym_static, 527),
     (mozjs_anon_sym_get, 527), (mozjs_anon_sym_set, 527),
     (mozjs_sym_preproc, 97), (mozjs_sym_html_comment, 5)]"

definition mozjs_parse_row_60 :: "(TSSymbol \<times> nat) list" where
  "mozjs_parse_row_60 =
    [(mozjs_sym_export_statement, 422), (mozjs_sym_declaration, 422),
     (mozjs_sym_import, 1333), (mozjs_sym_import_statement, 422),
     (mozjs_sym_statement, 479), (mozjs_sym_expression_statement, 422),
     (mozjs_sym_variable_declaration, 427), (mozjs_sym_lexical_declaration, 427),
     (mozjs_sym_using_declaration, 427), (mozjs_sym_statement_block, 422),
     (mozjs_sym_if_statement, 422), (mozjs_sym_switch_statement, 422),
     (mozjs_sym_for_statement, 422), (mozjs_sym_for_in_statement, 422),
     (mozjs_sym_while_statement, 422), (mozjs_sym_do_statement, 422),
     (mozjs_sym_try_statement, 422), (mozjs_sym_with_statement, 422),
     (mozjs_sym_break_statement, 422), (mozjs_sym_continue_statement, 422),
     (mozjs_sym_debugger_statement, 422), (mozjs_sym_return_statement, 422),
     (mozjs_sym_throw_statement, 422), (mozjs_sym_empty_statement, 422),
     (mozjs_sym_labeled_statement, 422), (mozjs_sym_parenthesized_expression, 556),
     (mozjs_sym_expression, 823), (mozjs_sym_primary_expression, 693),
     (mozjs_sym_yield_expression, 743), (mozjs_sym_object, 793),
     (mozjs_sym_object_pattern, 1845), (mozjs_sym_array, 793),
     (mozjs_sym_array_pattern, 1845), (mozjs_sym_jsx_element, 743),
     (mozjs_sym_jsx_opening_element, 1158), (mozjs_sym_jsx_self_closing_element, 743),
     (mozjs_sym_class, 793), (mozjs_sym_class_declaration, 427),
     (mozjs_sym_function_expression, 793), (mozjs_sym_function_declaration, 427),
     (mozjs_sym_generator_function, 793), (mozjs_sym_generator_function_declaration, 427),
     (mozjs_sym_arrow_function, 793), (mozjs_sym_call_expression, 793),
     (mozjs_sym_new_expression, 692), (mozjs_sym_await_expression, 743),
     (mozjs_sym_member_expression, 556), (mozjs_sym_subscript_expression, 556),
     (mozjs_sym_assignment_expression, 743), (mozjs_sym__augmented_assignment_lhs, 1146),
     (mozjs_sym_augmented_assignment_expression, 743), (mozjs_sym__destructuring_pattern, 1845),
     (mozjs_sym_ternary_expression, 743), (mozjs_sym_binary_expression, 743),
     (mozjs_sym_unary_expression, 743), (mozjs_sym_update_expression, 743),
     (mozjs_sym_sequence_expression, 1743), (mozjs_sym_string, 793),
     (mozjs_sym_template_string, 793), (mozjs_sym_regex, 793),
     (mozjs_sym_meta_property, 793), (mozjs_sym_decorator, 1112),
     (mozjs_sym_formal_parameters, 1847), (mozjs_aux_sym_export_statement_repeat1, 1308),
     (mozjs_sym_identifier, 503), (mozjs_anon_sym_export, 505),
     (mozjs_anon_sym_LBRACE, 507), (mozjs_anon_sym_import, 17),
     (mozjs_anon_sym_with, 509), (mozjs_anon_sym_var, 21),
     (mozjs_anon_sym_let, 511), (mozjs_anon_sym_const, 25),
     (mozjs_anon_sym_using, 27), (mozjs_anon_sym_await, 513),
     (mozjs_anon_sym_if, 515), (mozjs_anon_sym_switch, 33),
     (mozjs_anon_sym_for, 517), (mozjs_anon_sym_LPAREN, 37),
     (mozjs_anon_sym_SEMI, 39), (mozjs_anon_sym_while, 519),
     (mozjs_anon_sym_do, 43), (mozjs_anon_sym_try, 45),
     (mozjs_anon_sym_break, 47), (mozjs_anon_sym_continue, 49),
     (mozjs_anon_sym_debugger, 51), (mozjs_anon_sym_return, 53),
     (mozjs_anon_sym_throw, 55), (mozjs_anon_sym_yield, 57),
     (mozjs_anon_sym_LBRACK, 59), (mozjs_anon_sym_LT, 61),
     (mozjs_anon_sym_DQUOTE, 63), (mozjs_anon_sym_SQUOTE, 65),
     (mozjs_anon_sym_class, 521), (mozjs_anon_sym_async, 523),
     (mozjs_anon_sym_function, 525), (mozjs_anon_sym_new, 73),
     (mozjs_anon_sym_PLUS, 75), (mozjs_anon_sym_DASH, 75),
     (mozjs_anon_sym_SLASH, 77), (mozjs_anon_sym_BANG, 79),
     (mozjs_anon_sym_TILDE, 79), (mozjs_anon_sym_typeof, 75),
     (mozjs_anon_sym_void, 75), (mozjs_anon_sym_delete, 75),
     (mozjs_anon_sym_PLUS_PLUS, 81), (mozjs_anon_sym_DASH_DASH, 81),
     (mozjs_sym_comment, 5), (mozjs_anon_sym_BQUOTE, 83),
     (mozjs_sym_number, 85), (mozjs_sym_private_property_identifier, 87),
     (mozjs_sym_this, 89), (mozjs_sym_super, 89),
     (mozjs_sym_true, 89), (mozjs_sym_false, 89),
     (mozjs_sym_null, 89), (mozjs_sym_undefined, 91),
     (mozjs_anon_sym_AT, 93), (mozjs_anon_sym_static, 527),
     (mozjs_anon_sym_get, 527), (mozjs_anon_sym_set, 527),
     (mozjs_sym_preproc, 97), (mozjs_sym_html_comment, 5)]"

definition mozjs_parse_row_61 :: "(TSSymbol \<times> nat) list" where
  "mozjs_parse_row_61 =
    [(mozjs_sym_export_statement, 422), (mozjs_sym_declaration, 422),
     (mozjs_sym_import, 1333), (mozjs_sym_import_statement, 422),
     (mozjs_sym_statement, 455), (mozjs_sym_expression_statement, 422),
     (mozjs_sym_variable_declaration, 427), (mozjs_sym_lexical_declaration, 427),
     (mozjs_sym_using_declaration, 427), (mozjs_sym_statement_block, 422),
     (mozjs_sym_if_statement, 422), (mozjs_sym_switch_statement, 422),
     (mozjs_sym_for_statement, 422), (mozjs_sym_for_in_statement, 422),
     (mozjs_sym_while_statement, 422), (mozjs_sym_do_statement, 422),
     (mozjs_sym_try_statement, 422), (mozjs_sym_with_statement, 422),
     (mozjs_sym_break_statement, 422), (mozjs_sym_continue_statement, 422),
     (mozjs_sym_debugger_statement, 422), (mozjs_sym_return_statement, 422),
     (mozjs_sym_throw_statement, 422), (mozjs_sym_empty_statement, 422),
     (mozjs_sym_labeled_statement, 422), (mozjs_sym_parenthesized_expression, 556),
     (mozjs_sym_expression, 823), (mozjs_sym_primary_expression, 693),
     (mozjs_sym_yield_expression, 743), (mozjs_sym_object, 793),
     (mozjs_sym_object_pattern, 1845), (mozjs_sym_array, 793),
     (mozjs_sym_array_pattern, 1845), (mozjs_sym_jsx_element, 743),
     (mozjs_sym_jsx_opening_element, 1158), (mozjs_sym_jsx_self_closing_element, 743),
     (mozjs_sym_class, 793), (mozjs_sym_class_declaration, 427),
     (mozjs_sym_function_expression, 793), (mozjs_sym_function_declaration, 427),
     (mozjs_sym_generator_function, 793), (mozjs_sym_generator_function_declaration, 427),
     (mozjs_sym_arrow_function, 793), (mozjs_sym_call_expression, 793),
     (mozjs_sym_new_expression, 692), (mozjs_sym_await_expression, 743),
     (mozjs_sym_member_expression, 556), (mozjs_sym_subscript_expression, 556),
     (mozjs_sym_assignment_expression, 743), (mozjs_sym__augmented_assignment_lhs, 1146),
     (mozjs_sym_augmented_assignment_expression, 743), (mozjs_sym__destructuring_pattern, 1845),
     (mozjs_sym_ternary_expression, 743), (mozjs_sym_binary_expression, 743),
     (mozjs_sym_unary_expression, 743), (mozjs_sym_update_expression, 743),
     (mozjs_sym_sequence_expression, 1743), (mozjs_sym_string, 793),
     (mozjs_sym_template_string, 793), (mozjs_sym_regex, 793),
     (mozjs_sym_meta_property, 793), (mozjs_sym_decorator, 1112),
     (mozjs_sym_formal_parameters, 1847), (mozjs_aux_sym_export_statement_repeat1, 1278),
     (mozjs_sym_identifier, 9), (mozjs_anon_sym_export, 13),
     (mozjs_anon_sym_LBRACE, 15), (mozjs_anon_sym_import, 17),
     (mozjs_anon_sym_with, 19), (mozjs_anon_sym_var, 21),
     (mozjs_anon_sym_let, 23), (mozjs_anon_sym_const, 25),
     (mozjs_anon_sym_using, 27), (mozjs_anon_sym_await, 29),
     (mozjs_anon_sym_if, 31), (mozjs_anon_sym_switch, 33),
     (mozjs_anon_sym_for, 35), (mozjs_anon_sym_LPAREN, 37),
     (mozjs_anon_sym_SEMI, 39), (mozjs_anon_sym_while, 41),
     (mozjs_anon_sym_do, 43), (mozjs_anon_sym_try, 45),
     (mozjs_anon_sym_break, 47), (mozjs_anon_sym_continue, 49),
     (mozjs_anon_sym_debugger, 51), (mozjs_anon_sym_return, 53),
     (mozjs_anon_sym_throw, 55), (mozjs_anon_sym_yield, 57),
     (mozjs_anon_sym_LBRACK, 59), (mozjs_anon_sym_LT, 61),
     (mozjs_anon_sym_DQUOTE, 63), (mozjs_anon_sym_SQUOTE, 65),
     (mozjs_anon_sym_class, 67), (mozjs_anon_sym_async, 69),
     (mozjs_anon_sym_function, 71), (mozjs_anon_sym_new, 73),
     (mozjs_anon_sym_PLUS, 75), (mozjs_anon_sym_DASH, 75),
     (mozjs_anon_sym_SLASH, 77), (mozjs_anon_sym_BANG, 79),
     (mozjs_anon_sym_TILDE, 79), (mozjs_anon_sym_typeof, 75),
     (mozjs_anon_sym_void, 75), (mozjs_anon_sym_delete, 75),
     (mozjs_anon_sym_PLUS_PLUS, 81), (mozjs_anon_sym_DASH_DASH, 81),
     (mozjs_sym_comment, 5), (mozjs_anon_sym_BQUOTE, 83),
     (mozjs_sym_number, 85), (mozjs_sym_private_property_identifier, 87),
     (mozjs_sym_this, 89), (mozjs_sym_super, 89),
     (mozjs_sym_true, 89), (mozjs_sym_false, 89),
     (mozjs_sym_null, 89), (mozjs_sym_undefined, 91),
     (mozjs_anon_sym_AT, 93), (mozjs_anon_sym_static, 95),
     (mozjs_anon_sym_get, 95), (mozjs_anon_sym_set, 95),
     (mozjs_sym_preproc, 97), (mozjs_sym_html_comment, 5)]"

definition mozjs_parse_row_62 :: "(TSSymbol \<times> nat) list" where
  "mozjs_parse_row_62 =
    [(mozjs_sym_export_statement, 422), (mozjs_sym_declaration, 422),
     (mozjs_sym_import, 1333), (mozjs_sym_import_statement, 422),
     (mozjs_sym_statement, 425), (mozjs_sym_expression_statement, 422),
     (mozjs_sym_variable_declaration, 427), (mozjs_sym_lexical_declaration, 427),
     (mozjs_sym_using_declaration, 427), (mozjs_sym_statement_block, 422),
     (mozjs_sym_if_statement, 422), (mozjs_sym_switch_statement, 422),
     (mozjs_sym_for_statement, 422), (mozjs_sym_for_in_statement, 422),
     (mozjs_sym_while_statement, 422), (mozjs_sym_do_statement, 422),
     (mozjs_sym_try_statement, 422), (mozjs_sym_with_statement, 422),
     (mozjs_sym_break_statement, 422), (mozjs_sym_continue_statement, 422),
     (mozjs_sym_debugger_statement, 422), (mozjs_sym_return_statement, 422),
     (mozjs_sym_throw_statement, 422), (mozjs_sym_empty_statement, 422),
     (mozjs_sym_labeled_statement, 422), (mozjs_sym_parenthesized_expression, 556),
     (mozjs_sym_expression, 823), (mozjs_sym_primary_expression, 693),
     (mozjs_sym_yield_expression, 743), (mozjs_sym_object, 793),
     (mozjs_sym_object_pattern, 1845), (mozjs_sym_array, 793),
     (mozjs_sym_array_pattern, 1845), (mozjs_sym_jsx_element, 743),
     (mozjs_sym_jsx_opening_element, 1158), (mozjs_sym_jsx_self_closing_element, 743),
     (mozjs_sym_class, 793), (mozjs_sym_class_declaration, 427),
     (mozjs_sym_function_expression, 793), (mozjs_sym_function_declaration, 427),
     (mozjs_sym_generator_function, 793), (mozjs_sym_generator_function_declaration, 427),
     (mozjs_sym_arrow_function, 793), (mozjs_sym_call_expression, 793),
     (mozjs_sym_new_expression, 692), (mozjs_sym_await_expression, 743),
     (mozjs_sym_member_expression, 556), (mozjs_sym_subscript_expression, 556),
     (mozjs_sym_assignment_expression, 743), (mozjs_sym__augmented_assignment_lhs, 1146),
     (mozjs_sym_augmented_assignment_expression, 743), (mozjs_sym__destructuring_pattern, 1845),
     (mozjs_sym_ternary_expression, 743), (mozjs_sym_binary_expression, 743),
     (mozjs_sym_unary_expression, 743), (mozjs_sym_update_expression, 743),
     (mozjs_sym_sequence_expression, 1743), (mozjs_sym_string, 793),
     (mozjs_sym_template_string, 793), (mozjs_sym_regex, 793),
     (mozjs_sym_meta_property, 793), (mozjs_sym_decorator, 1112),
     (mozjs_sym_formal_parameters, 1847), (mozjs_aux_sym_export_statement_repeat1, 1278),
     (mozjs_sym_identifier, 9), (mozjs_anon_sym_export, 13),
     (mozjs_anon_sym_LBRACE, 15), (mozjs_anon_sym_import, 17),
     (mozjs_anon_sym_with, 19), (mozjs_anon_sym_var, 21),
     (mozjs_anon_sym_let, 23), (mozjs_anon_sym_const, 25),
     (mozjs_anon_sym_using, 27), (mozjs_anon_sym_await, 29),
     (mozjs_anon_sym_if, 31), (mozjs_anon_sym_switch, 33),
     (mozjs_anon_sym_for, 35), (mozjs_anon_sym_LPAREN, 37),
     (mozjs_anon_sym_SEMI, 39), (mozjs_anon_sym_while, 41),
     (mozjs_anon_sym_do, 43), (mozjs_anon_sym_try, 45),
     (mozjs_anon_sym_break, 47), (mozjs_anon_sym_continue, 49),
     (mozjs_anon_sym_debugger, 51), (mozjs_anon_sym_return, 53),
     (mozjs_anon_sym_throw, 55), (mozjs_anon_sym_yield, 57),
     (mozjs_anon_sym_LBRACK, 59), (mozjs_anon_sym_LT, 61),
     (mozjs_anon_sym_DQUOTE, 63), (mozjs_anon_sym_SQUOTE, 65),
     (mozjs_anon_sym_class, 67), (mozjs_anon_sym_async, 69),
     (mozjs_anon_sym_function, 71), (mozjs_anon_sym_new, 73),
     (mozjs_anon_sym_PLUS, 75), (mozjs_anon_sym_DASH, 75),
     (mozjs_anon_sym_SLASH, 77), (mozjs_anon_sym_BANG, 79),
     (mozjs_anon_sym_TILDE, 79), (mozjs_anon_sym_typeof, 75),
     (mozjs_anon_sym_void, 75), (mozjs_anon_sym_delete, 75),
     (mozjs_anon_sym_PLUS_PLUS, 81), (mozjs_anon_sym_DASH_DASH, 81),
     (mozjs_sym_comment, 5), (mozjs_anon_sym_BQUOTE, 83),
     (mozjs_sym_number, 85), (mozjs_sym_private_property_identifier, 87),
     (mozjs_sym_this, 89), (mozjs_sym_super, 89),
     (mozjs_sym_true, 89), (mozjs_sym_false, 89),
     (mozjs_sym_null, 89), (mozjs_sym_undefined, 91),
     (mozjs_anon_sym_AT, 93), (mozjs_anon_sym_static, 95),
     (mozjs_anon_sym_get, 95), (mozjs_anon_sym_set, 95),
     (mozjs_sym_preproc, 97), (mozjs_sym_html_comment, 5)]"

definition mozjs_parse_row_63 :: "(TSSymbol \<times> nat) list" where
  "mozjs_parse_row_63 =
    [(mozjs_sym_export_statement, 422), (mozjs_sym_declaration, 422),
     (mozjs_sym_import, 1333), (mozjs_sym_import_statement, 422),
     (mozjs_sym_statement, 1853), (mozjs_sym_expression_statement, 422),
     (mozjs_sym_variable_declaration, 427), (mozjs_sym_lexical_declaration, 427),
     (mozjs_sym_using_declaration, 427), (mozjs_sym_statement_block, 422),
     (mozjs_sym_if_statement, 422), (mozjs_sym_switch_statement, 422),
     (mozjs_sym_for_statement, 422), (mozjs_sym_for_in_statement, 422),
     (mozjs_sym_while_statement, 422), (mozjs_sym_do_statement, 422),
     (mozjs_sym_try_statement, 422), (mozjs_sym_with_statement, 422),
     (mozjs_sym_break_statement, 422), (mozjs_sym_continue_statement, 422),
     (mozjs_sym_debugger_statement, 422), (mozjs_sym_return_statement, 422),
     (mozjs_sym_throw_statement, 422), (mozjs_sym_empty_statement, 422),
     (mozjs_sym_labeled_statement, 422), (mozjs_sym_parenthesized_expression, 556),
     (mozjs_sym_expression, 823), (mozjs_sym_primary_expression, 693),
     (mozjs_sym_yield_expression, 743), (mozjs_sym_object, 793),
     (mozjs_sym_object_pattern, 1845), (mozjs_sym_array, 793),
     (mozjs_sym_array_pattern, 1845), (mozjs_sym_jsx_element, 743),
     (mozjs_sym_jsx_opening_element, 1158), (mozjs_sym_jsx_self_closing_element, 743),
     (mozjs_sym_class, 793), (mozjs_sym_class_declaration, 427),
     (mozjs_sym_function_expression, 793), (mozjs_sym_function_declaration, 427),
     (mozjs_sym_generator_function, 793), (mozjs_sym_generator_function_declaration, 427),
     (mozjs_sym_arrow_function, 793), (mozjs_sym_call_expression, 793),
     (mozjs_sym_new_expression, 692), (mozjs_sym_await_expression, 743),
     (mozjs_sym_member_expression, 556), (mozjs_sym_subscript_expression, 556),
     (mozjs_sym_assignment_expression, 743), (mozjs_sym__augmented_assignment_lhs, 1146),
     (mozjs_sym_augmented_assignment_expression, 743), (mozjs_sym__destructuring_pattern, 1845),
     (mozjs_sym_ternary_expression, 743), (mozjs_sym_binary_expression, 743),
     (mozjs_sym_unary_expression, 743), (mozjs_sym_update_expression, 743),
     (mozjs_sym_sequence_expression, 1743), (mozjs_sym_string, 793),
     (mozjs_sym_template_string, 793), (mozjs_sym_regex, 793),
     (mozjs_sym_meta_property, 793), (mozjs_sym_decorator, 1112),
     (mozjs_sym_formal_parameters, 1847), (mozjs_aux_sym_export_statement_repeat1, 1308),
     (mozjs_sym_identifier, 503), (mozjs_anon_sym_export, 505),
     (mozjs_anon_sym_LBRACE, 507), (mozjs_anon_sym_import, 17),
     (mozjs_anon_sym_with, 509), (mozjs_anon_sym_var, 21),
     (mozjs_anon_sym_let, 511), (mozjs_anon_sym_const, 25),
     (mozjs_anon_sym_using, 27), (mozjs_anon_sym_await, 513),
     (mozjs_anon_sym_if, 515), (mozjs_anon_sym_switch, 33),
     (mozjs_anon_sym_for, 517), (mozjs_anon_sym_LPAREN, 37),
     (mozjs_anon_sym_SEMI, 39), (mozjs_anon_sym_while, 519),
     (mozjs_anon_sym_do, 43), (mozjs_anon_sym_try, 45),
     (mozjs_anon_sym_break, 47), (mozjs_anon_sym_continue, 49),
     (mozjs_anon_sym_debugger, 51), (mozjs_anon_sym_return, 53),
     (mozjs_anon_sym_throw, 55), (mozjs_anon_sym_yield, 57),
     (mozjs_anon_sym_LBRACK, 59), (mozjs_anon_sym_LT, 61),
     (mozjs_anon_sym_DQUOTE, 63), (mozjs_anon_sym_SQUOTE, 65),
     (mozjs_anon_sym_class, 521), (mozjs_anon_sym_async, 523),
     (mozjs_anon_sym_function, 525), (mozjs_anon_sym_new, 73),
     (mozjs_anon_sym_PLUS, 75), (mozjs_anon_sym_DASH, 75),
     (mozjs_anon_sym_SLASH, 77), (mozjs_anon_sym_BANG, 79),
     (mozjs_anon_sym_TILDE, 79), (mozjs_anon_sym_typeof, 75),
     (mozjs_anon_sym_void, 75), (mozjs_anon_sym_delete, 75),
     (mozjs_anon_sym_PLUS_PLUS, 81), (mozjs_anon_sym_DASH_DASH, 81),
     (mozjs_sym_comment, 5), (mozjs_anon_sym_BQUOTE, 83),
     (mozjs_sym_number, 85), (mozjs_sym_private_property_identifier, 87),
     (mozjs_sym_this, 89), (mozjs_sym_super, 89),
     (mozjs_sym_true, 89), (mozjs_sym_false, 89),
     (mozjs_sym_null, 89), (mozjs_sym_undefined, 91),
     (mozjs_anon_sym_AT, 93), (mozjs_anon_sym_static, 527),
     (mozjs_anon_sym_get, 527), (mozjs_anon_sym_set, 527),
     (mozjs_sym_preproc, 97), (mozjs_sym_html_comment, 5)]"

definition mozjs_parse_row_64 :: "(TSSymbol \<times> nat) list" where
  "mozjs_parse_row_64 =
    [(mozjs_sym_export_statement, 422), (mozjs_sym_declaration, 422),
     (mozjs_sym_import, 1333), (mozjs_sym_import_statement, 422),
     (mozjs_sym_statement, 448), (mozjs_sym_expression_statement, 422),
     (mozjs_sym_variable_declaration, 427), (mozjs_sym_lexical_declaration, 427),
     (mozjs_sym_using_declaration, 427), (mozjs_sym_statement_block, 422),
     (mozjs_sym_if_statement, 422), (mozjs_sym_switch_statement, 422),
     (mozjs_sym_for_statement, 422), (mozjs_sym_for_in_statement, 422),
     (mozjs_sym_while_statement, 422), (mozjs_sym_do_statement, 422),
     (mozjs_sym_try_statement, 422), (mozjs_sym_with_statement, 422),
     (mozjs_sym_break_statement, 422), (mozjs_sym_continue_statement, 422),
     (mozjs_sym_debugger_statement, 422), (mozjs_sym_return_statement, 422),
     (mozjs_sym_throw_statement, 422), (mozjs_sym_empty_statement, 422),
     (mozjs_sym_labeled_statement, 422), (mozjs_sym_parenthesized_expression, 556),
     (mozjs_sym_expression, 823), (mozjs_sym_primary_expression, 693),
     (mozjs_sym_yield_expression, 743), (mozjs_sym_object, 793),
     (mozjs_sym_object_pattern, 1845), (mozjs_sym_array, 793),
     (mozjs_sym_array_pattern, 1845), (mozjs_sym_jsx_element, 743),
     (mozjs_sym_jsx_opening_element, 1158), (mozjs_sym_jsx_self_closing_element, 743),
     (mozjs_sym_class, 793), (mozjs_sym_class_declaration, 427),
     (mozjs_sym_function_expression, 793), (mozjs_sym_function_declaration, 427),
     (mozjs_sym_generator_function, 793), (mozjs_sym_generator_function_declaration, 427),
     (mozjs_sym_arrow_function, 793), (mozjs_sym_call_expression, 793),
     (mozjs_sym_new_expression, 692), (mozjs_sym_await_expression, 743),
     (mozjs_sym_member_expression, 556), (mozjs_sym_subscript_expression, 556),
     (mozjs_sym_assignment_expression, 743), (mozjs_sym__augmented_assignment_lhs, 1146),
     (mozjs_sym_augmented_assignment_expression, 743), (mozjs_sym__destructuring_pattern, 1845),
     (mozjs_sym_ternary_expression, 743), (mozjs_sym_binary_expression, 743),
     (mozjs_sym_unary_expression, 743), (mozjs_sym_update_expression, 743),
     (mozjs_sym_sequence_expression, 1743), (mozjs_sym_string, 793),
     (mozjs_sym_template_string, 793), (mozjs_sym_regex, 793),
     (mozjs_sym_meta_property, 793), (mozjs_sym_decorator, 1112),
     (mozjs_sym_formal_parameters, 1847), (mozjs_aux_sym_export_statement_repeat1, 1278),
     (mozjs_sym_identifier, 9), (mozjs_anon_sym_export, 13),
     (mozjs_anon_sym_LBRACE, 15), (mozjs_anon_sym_import, 17),
     (mozjs_anon_sym_with, 19), (mozjs_anon_sym_var, 21),
     (mozjs_anon_sym_let, 23), (mozjs_anon_sym_const, 25),
     (mozjs_anon_sym_using, 27), (mozjs_anon_sym_await, 29),
     (mozjs_anon_sym_if, 31), (mozjs_anon_sym_switch, 33),
     (mozjs_anon_sym_for, 35), (mozjs_anon_sym_LPAREN, 37),
     (mozjs_anon_sym_SEMI, 39), (mozjs_anon_sym_while, 41),
     (mozjs_anon_sym_do, 43), (mozjs_anon_sym_try, 45),
     (mozjs_anon_sym_break, 47), (mozjs_anon_sym_continue, 49),
     (mozjs_anon_sym_debugger, 51), (mozjs_anon_sym_return, 53),
     (mozjs_anon_sym_throw, 55), (mozjs_anon_sym_yield, 57),
     (mozjs_anon_sym_LBRACK, 59), (mozjs_anon_sym_LT, 61),
     (mozjs_anon_sym_DQUOTE, 63), (mozjs_anon_sym_SQUOTE, 65),
     (mozjs_anon_sym_class, 67), (mozjs_anon_sym_async, 69),
     (mozjs_anon_sym_function, 71), (mozjs_anon_sym_new, 73),
     (mozjs_anon_sym_PLUS, 75), (mozjs_anon_sym_DASH, 75),
     (mozjs_anon_sym_SLASH, 77), (mozjs_anon_sym_BANG, 79),
     (mozjs_anon_sym_TILDE, 79), (mozjs_anon_sym_typeof, 75),
     (mozjs_anon_sym_void, 75), (mozjs_anon_sym_delete, 75),
     (mozjs_anon_sym_PLUS_PLUS, 81), (mozjs_anon_sym_DASH_DASH, 81),
     (mozjs_sym_comment, 5), (mozjs_anon_sym_BQUOTE, 83),
     (mozjs_sym_number, 85), (mozjs_sym_private_property_identifier, 87),
     (mozjs_sym_this, 89), (mozjs_sym_super, 89),
     (mozjs_sym_true, 89), (mozjs_sym_false, 89),
     (mozjs_sym_null, 89), (mozjs_sym_undefined, 91),
     (mozjs_anon_sym_AT, 93), (mozjs_anon_sym_static, 95),
     (mozjs_anon_sym_get, 95), (mozjs_anon_sym_set, 95),
     (mozjs_sym_preproc, 97), (mozjs_sym_html_comment, 5)]"

definition mozjs_parse_row_65 :: "(TSSymbol \<times> nat) list" where
  "mozjs_parse_row_65 =
    [(mozjs_sym_import, 1340), (mozjs_sym_parenthesized_expression, 525),
     (mozjs_sym_expression, 586), (mozjs_sym_primary_expression, 584),
     (mozjs_sym_yield_expression, 638), (mozjs_sym_object, 645),
     (mozjs_sym_object_pattern, 1827), (mozjs_sym_array, 645),
     (mozjs_sym_array_pattern, 1827), (mozjs_sym_jsx_element, 638),
     (mozjs_sym_jsx_opening_element, 1152), (mozjs_sym_jsx_self_closing_element, 638),
     (mozjs_sym_class, 645), (mozjs_sym_function_expression, 645),
     (mozjs_sym_generator_function, 645), (mozjs_sym_arrow_function, 645),
     (mozjs_sym_call_expression, 645), (mozjs_sym_new_expression, 587),
     (mozjs_sym_await_expression, 638), (mozjs_sym_member_expression, 525),
     (mozjs_sym_subscript_expression, 525), (mozjs_sym_assignment_expression, 638),
     (mozjs_sym__augmented_assignment_lhs, 1145), (mozjs_sym_augmented_assignment_expression,
       638),
     (mozjs_sym__destructuring_pattern, 1827), (mozjs_sym_ternary_expression, 638),
     (mozjs_sym_binary_expression, 638), (mozjs_sym_unary_expression, 638),
     (mozjs_sym_update_expression, 638), (mozjs_sym_string, 645),
     (mozjs_sym_template_string, 645), (mozjs_sym_regex, 645),
     (mozjs_sym_meta_property, 645), (mozjs_sym_decorator, 1112),
     (mozjs_sym_formal_parameters, 1777), (mozjs_aux_sym_export_statement_repeat1, 1395),
     (mozjs_sym_identifier, 384), (mozjs_anon_sym_export, 386),
     (mozjs_anon_sym_STAR, 307), (mozjs_anon_sym_LBRACE, 388),
     (mozjs_anon_sym_COMMA, 311), (mozjs_anon_sym_import, 390),
     (mozjs_anon_sym_let, 386), (mozjs_anon_sym_using, 544),
     (mozjs_anon_sym_await, 392), (mozjs_anon_sym_of, 546),
     (mozjs_anon_sym_LPAREN, 394), (mozjs_anon_sym_SEMI, 311),
     (mozjs_anon_sym_in, 548), (mozjs_anon_sym_yield, 397),
     (mozjs_anon_sym_EQ, 399), (mozjs_anon_sym_LBRACK, 401),
     (mozjs_anon_sym_LT, 404), (mozjs_anon_sym_GT, 307),
     (mozjs_anon_sym_DOT, 307), (mozjs_anon_sym_DQUOTE, 407),
     (mozjs_anon_sym_SQUOTE, 409), (mozjs_anon_sym_class, 411),
     (mozjs_anon_sym_async, 413), (mozjs_anon_sym_function, 415),
     (mozjs_anon_sym_EQ_GT, 417), (mozjs_sym_optional_chain, 311),
     (mozjs_anon_sym_new, 419), (mozjs_anon_sym_PLUS_EQ, 344),
     (mozjs_anon_sym_DASH_EQ, 344), (mozjs_anon_sym_STAR_EQ, 344),
     (mozjs_anon_sym_SLASH_EQ, 344), (mozjs_anon_sym_PERCENT_EQ, 344),
     (mozjs_anon_sym_CARET_EQ, 344), (mozjs_anon_sym_AMP_EQ, 344),
     (mozjs_anon_sym_PIPE_EQ, 344), (mozjs_anon_sym_GT_GT_EQ, 344),
     (mozjs_anon_sym_GT_GT_GT_EQ, 344), (mozjs_anon_sym_LT_LT_EQ, 344),
     (mozjs_anon_sym_STAR_STAR_EQ, 344), (mozjs_anon_sym_AMP_AMP_EQ, 344),
     (mozjs_anon_sym_PIPE_PIPE_EQ, 344), (mozjs_anon_sym_QMARK_QMARK_EQ, 344),
     (mozjs_anon_sym_AMP_AMP, 307), (mozjs_anon_sym_PIPE_PIPE, 307),
     (mozjs_anon_sym_GT_GT, 307), (mozjs_anon_sym_GT_GT_GT, 307),
     (mozjs_anon_sym_LT_LT, 307), (mozjs_anon_sym_AMP, 307),
     (mozjs_anon_sym_CARET, 307), (mozjs_anon_sym_PIPE, 307),
     (mozjs_anon_sym_PLUS, 421), (mozjs_anon_sym_DASH, 421),
     (mozjs_anon_sym_SLASH, 424), (mozjs_anon_sym_PERCENT, 307),
     (mozjs_anon_sym_STAR_STAR, 307), (mozjs_anon_sym_LT_EQ, 311),
     (mozjs_anon_sym_EQ_EQ, 307), (mozjs_anon_sym_EQ_EQ_EQ, 311),
     (mozjs_anon_sym_BANG_EQ, 307), (mozjs_anon_sym_BANG_EQ_EQ, 311),
     (mozjs_anon_sym_GT_EQ, 311), (mozjs_anon_sym_QMARK_QMARK, 307),
     (mozjs_anon_sym_instanceof, 307), (mozjs_anon_sym_BANG, 427),
     (mozjs_anon_sym_TILDE, 429), (mozjs_anon_sym_typeof, 427),
     (mozjs_anon_sym_void, 427), (mozjs_anon_sym_delete, 427),
     (mozjs_anon_sym_PLUS_PLUS, 431), (mozjs_anon_sym_DASH_DASH, 431),
     (mozjs_sym_comment, 5), (mozjs_anon_sym_BQUOTE, 434),
     (mozjs_sym_number, 437), (mozjs_sym_private_property_identifier, 439),
     (mozjs_sym_this, 441), (mozjs_sym_super, 441),
     (mozjs_sym_true, 441), (mozjs_sym_false, 441),
     (mozjs_sym_null, 441), (mozjs_sym_undefined, 443),
     (mozjs_anon_sym_AT, 93), (mozjs_anon_sym_static, 386),
     (mozjs_anon_sym_get, 386), (mozjs_anon_sym_set, 386),
     (mozjs_sym__ternary_qmark, 311), (mozjs_sym_html_comment, 5)]"

definition mozjs_parse_row_66 :: "(TSSymbol \<times> nat) list" where
  "mozjs_parse_row_66 =
    [(mozjs_sym_export_statement, 422), (mozjs_sym_declaration, 422),
     (mozjs_sym_import, 1333), (mozjs_sym_import_statement, 422),
     (mozjs_sym_statement, 435), (mozjs_sym_expression_statement, 422),
     (mozjs_sym_variable_declaration, 427), (mozjs_sym_lexical_declaration, 427),
     (mozjs_sym_using_declaration, 427), (mozjs_sym_statement_block, 422),
     (mozjs_sym_if_statement, 422), (mozjs_sym_switch_statement, 422),
     (mozjs_sym_for_statement, 422), (mozjs_sym_for_in_statement, 422),
     (mozjs_sym_while_statement, 422), (mozjs_sym_do_statement, 422),
     (mozjs_sym_try_statement, 422), (mozjs_sym_with_statement, 422),
     (mozjs_sym_break_statement, 422), (mozjs_sym_continue_statement, 422),
     (mozjs_sym_debugger_statement, 422), (mozjs_sym_return_statement, 422),
     (mozjs_sym_throw_statement, 422), (mozjs_sym_empty_statement, 422),
     (mozjs_sym_labeled_statement, 422), (mozjs_sym_parenthesized_expression, 556),
     (mozjs_sym_expression, 823), (mozjs_sym_primary_expression, 693),
     (mozjs_sym_yield_expression, 743), (mozjs_sym_object, 793),
     (mozjs_sym_object_pattern, 1845), (mozjs_sym_array, 793),
     (mozjs_sym_array_pattern, 1845), (mozjs_sym_jsx_element, 743),
     (mozjs_sym_jsx_opening_element, 1158), (mozjs_sym_jsx_self_closing_element, 743),
     (mozjs_sym_class, 793), (mozjs_sym_class_declaration, 427),
     (mozjs_sym_function_expression, 793), (mozjs_sym_function_declaration, 427),
     (mozjs_sym_generator_function, 793), (mozjs_sym_generator_function_declaration, 427),
     (mozjs_sym_arrow_function, 793), (mozjs_sym_call_expression, 793),
     (mozjs_sym_new_expression, 692), (mozjs_sym_await_expression, 743),
     (mozjs_sym_member_expression, 556), (mozjs_sym_subscript_expression, 556),
     (mozjs_sym_assignment_expression, 743), (mozjs_sym__augmented_assignment_lhs, 1146),
     (mozjs_sym_augmented_assignment_expression, 743), (mozjs_sym__destructuring_pattern, 1845),
     (mozjs_sym_ternary_expression, 743), (mozjs_sym_binary_expression, 743),
     (mozjs_sym_unary_expression, 743), (mozjs_sym_update_expression, 743),
     (mozjs_sym_sequence_expression, 1743), (mozjs_sym_string, 793),
     (mozjs_sym_template_string, 793), (mozjs_sym_regex, 793),
     (mozjs_sym_meta_property, 793), (mozjs_sym_decorator, 1112),
     (mozjs_sym_formal_parameters, 1847), (mozjs_aux_sym_export_statement_repeat1, 1278),
     (mozjs_sym_identifier, 9), (mozjs_anon_sym_export, 13),
     (mozjs_anon_sym_LBRACE, 15), (mozjs_anon_sym_import, 17),
     (mozjs_anon_sym_with, 19), (mozjs_anon_sym_var, 21),
     (mozjs_anon_sym_let, 23), (mozjs_anon_sym_const, 25),
     (mozjs_anon_sym_using, 27), (mozjs_anon_sym_await, 29),
     (mozjs_anon_sym_if, 31), (mozjs_anon_sym_switch, 33),
     (mozjs_anon_sym_for, 35), (mozjs_anon_sym_LPAREN, 37),
     (mozjs_anon_sym_SEMI, 39), (mozjs_anon_sym_while, 41),
     (mozjs_anon_sym_do, 43), (mozjs_anon_sym_try, 45),
     (mozjs_anon_sym_break, 47), (mozjs_anon_sym_continue, 49),
     (mozjs_anon_sym_debugger, 51), (mozjs_anon_sym_return, 53),
     (mozjs_anon_sym_throw, 55), (mozjs_anon_sym_yield, 57),
     (mozjs_anon_sym_LBRACK, 59), (mozjs_anon_sym_LT, 61),
     (mozjs_anon_sym_DQUOTE, 63), (mozjs_anon_sym_SQUOTE, 65),
     (mozjs_anon_sym_class, 67), (mozjs_anon_sym_async, 69),
     (mozjs_anon_sym_function, 71), (mozjs_anon_sym_new, 73),
     (mozjs_anon_sym_PLUS, 75), (mozjs_anon_sym_DASH, 75),
     (mozjs_anon_sym_SLASH, 77), (mozjs_anon_sym_BANG, 79),
     (mozjs_anon_sym_TILDE, 79), (mozjs_anon_sym_typeof, 75),
     (mozjs_anon_sym_void, 75), (mozjs_anon_sym_delete, 75),
     (mozjs_anon_sym_PLUS_PLUS, 81), (mozjs_anon_sym_DASH_DASH, 81),
     (mozjs_sym_comment, 5), (mozjs_anon_sym_BQUOTE, 83),
     (mozjs_sym_number, 85), (mozjs_sym_private_property_identifier, 87),
     (mozjs_sym_this, 89), (mozjs_sym_super, 89),
     (mozjs_sym_true, 89), (mozjs_sym_false, 89),
     (mozjs_sym_null, 89), (mozjs_sym_undefined, 91),
     (mozjs_anon_sym_AT, 93), (mozjs_anon_sym_static, 95),
     (mozjs_anon_sym_get, 95), (mozjs_anon_sym_set, 95),
     (mozjs_sym_preproc, 97), (mozjs_sym_html_comment, 5)]"

definition mozjs_parse_row_67 :: "(TSSymbol \<times> nat) list" where
  "mozjs_parse_row_67 =
    [(mozjs_sym_import, 1333), (mozjs_sym_parenthesized_expression, 559),
     (mozjs_sym_expression, 698), (mozjs_sym_primary_expression, 693),
     (mozjs_sym_yield_expression, 743), (mozjs_sym_object, 793),
     (mozjs_sym_object_pattern, 1811), (mozjs_sym_array, 793),
     (mozjs_sym_array_pattern, 1811), (mozjs_sym_jsx_element, 743),
     (mozjs_sym_jsx_opening_element, 1158), (mozjs_sym_jsx_self_closing_element, 743),
     (mozjs_sym_class, 793), (mozjs_sym_function_expression, 793),
     (mozjs_sym_generator_function, 793), (mozjs_sym_arrow_function, 793),
     (mozjs_sym_call_expression, 793), (mozjs_sym_new_expression, 692),
     (mozjs_sym_await_expression, 743), (mozjs_sym_member_expression, 559),
     (mozjs_sym_subscript_expression, 559), (mozjs_sym_assignment_expression, 743),
     (mozjs_sym__augmented_assignment_lhs, 1143), (mozjs_sym_augmented_assignment_expression,
       743),
     (mozjs_sym__destructuring_pattern, 1811), (mozjs_sym_ternary_expression, 743),
     (mozjs_sym_binary_expression, 743), (mozjs_sym_unary_expression, 743),
     (mozjs_sym_update_expression, 743), (mozjs_sym_string, 793),
     (mozjs_sym_template_string, 793), (mozjs_sym_regex, 793),
     (mozjs_sym_meta_property, 793), (mozjs_sym_decorator, 1112),
     (mozjs_sym_formal_parameters, 1812), (mozjs_aux_sym_export_statement_repeat1, 1331),
     (mozjs_sym_identifier, 551), (mozjs_anon_sym_export, 553),
     (mozjs_anon_sym_STAR, 307), (mozjs_anon_sym_LBRACE, 309),
     (mozjs_anon_sym_COMMA, 311), (mozjs_anon_sym_import, 315),
     (mozjs_anon_sym_let, 553), (mozjs_anon_sym_await, 555),
     (mozjs_anon_sym_of, 307), (mozjs_anon_sym_LPAREN, 494),
     (mozjs_anon_sym_SEMI, 311), (mozjs_anon_sym_in, 307),
     (mozjs_anon_sym_yield, 557), (mozjs_anon_sym_EQ, 559),
     (mozjs_anon_sym_LBRACK, 330), (mozjs_anon_sym_LT, 333),
     (mozjs_anon_sym_GT, 307), (mozjs_anon_sym_DOT, 307),
     (mozjs_anon_sym_DQUOTE, 63), (mozjs_anon_sym_SQUOTE, 65),
     (mozjs_anon_sym_class, 336), (mozjs_anon_sym_async, 561),
     (mozjs_anon_sym_function, 340), (mozjs_anon_sym_EQ_GT, 563),
     (mozjs_sym_optional_chain, 311), (mozjs_anon_sym_new, 565),
     (mozjs_anon_sym_PLUS_EQ, 344), (mozjs_anon_sym_DASH_EQ, 344),
     (mozjs_anon_sym_STAR_EQ, 344), (mozjs_anon_sym_SLASH_EQ, 344),
     (mozjs_anon_sym_PERCENT_EQ, 344), (mozjs_anon_sym_CARET_EQ, 344),
     (mozjs_anon_sym_AMP_EQ, 344), (mozjs_anon_sym_PIPE_EQ, 344),
     (mozjs_anon_sym_GT_GT_EQ, 344), (mozjs_anon_sym_GT_GT_GT_EQ, 344),
     (mozjs_anon_sym_LT_LT_EQ, 344), (mozjs_anon_sym_STAR_STAR_EQ, 344),
     (mozjs_anon_sym_AMP_AMP_EQ, 344), (mozjs_anon_sym_PIPE_PIPE_EQ, 344),
     (mozjs_anon_sym_QMARK_QMARK_EQ, 344), (mozjs_anon_sym_AMP_AMP, 307),
     (mozjs_anon_sym_PIPE_PIPE, 307), (mozjs_anon_sym_GT_GT, 307),
     (mozjs_anon_sym_GT_GT_GT, 307), (mozjs_anon_sym_LT_LT, 307),
     (mozjs_anon_sym_AMP, 307), (mozjs_anon_sym_CARET, 307),
     (mozjs_anon_sym_PIPE, 307), (mozjs_anon_sym_PLUS, 567),
     (mozjs_anon_sym_DASH, 567), (mozjs_anon_sym_SLASH, 570),
     (mozjs_anon_sym_PERCENT, 307), (mozjs_anon_sym_STAR_STAR, 307),
     (mozjs_anon_sym_LT_EQ, 311), (mozjs_anon_sym_EQ_EQ, 307),
     (mozjs_anon_sym_EQ_EQ_EQ, 311), (mozjs_anon_sym_BANG_EQ, 307),
     (mozjs_anon_sym_BANG_EQ_EQ, 311), (mozjs_anon_sym_GT_EQ, 311),
     (mozjs_anon_sym_QMARK_QMARK, 307), (mozjs_anon_sym_instanceof, 307),
     (mozjs_anon_sym_BANG, 573), (mozjs_anon_sym_TILDE, 575),
     (mozjs_anon_sym_typeof, 573), (mozjs_anon_sym_void, 573),
     (mozjs_anon_sym_delete, 573), (mozjs_anon_sym_PLUS_PLUS, 577),
     (mozjs_anon_sym_DASH_DASH, 577), (mozjs_sym_comment, 5),
     (mozjs_anon_sym_BQUOTE, 355), (mozjs_sym_number, 85),
     (mozjs_sym_private_property_identifier, 580), (mozjs_sym_this, 89),
     (mozjs_sym_super, 89), (mozjs_sym_true, 89),
     (mozjs_sym_false, 89), (mozjs_sym_null, 89),
     (mozjs_sym_undefined, 582), (mozjs_anon_sym_AT, 93),
     (mozjs_anon_sym_static, 553), (mozjs_anon_sym_get, 553),
     (mozjs_anon_sym_set, 553), (mozjs_sym__automatic_semicolon, 311),
     (mozjs_sym__ternary_qmark, 311), (mozjs_sym_html_comment, 5)]"

definition mozjs_parse_row_68 :: "(TSSymbol \<times> nat) list" where
  "mozjs_parse_row_68 =
    [(mozjs_sym_import, 1340), (mozjs_sym_parenthesized_expression, 499),
     (mozjs_sym_expression, 586), (mozjs_sym_primary_expression, 584),
     (mozjs_sym_yield_expression, 638), (mozjs_sym_object, 645),
     (mozjs_sym_object_pattern, 1766), (mozjs_sym_array, 645),
     (mozjs_sym_array_pattern, 1766), (mozjs_sym_jsx_element, 638),
     (mozjs_sym_jsx_opening_element, 1152), (mozjs_sym_jsx_self_closing_element, 638),
     (mozjs_sym_class, 645), (mozjs_sym_function_expression, 645),
     (mozjs_sym_generator_function, 645), (mozjs_sym_arrow_function, 645),
     (mozjs_sym_call_expression, 645), (mozjs_sym_new_expression, 587),
     (mozjs_sym_await_expression, 638), (mozjs_sym_member_expression, 499),
     (mozjs_sym_subscript_expression, 499), (mozjs_sym_assignment_expression, 638),
     (mozjs_sym__augmented_assignment_lhs, 1144), (mozjs_sym_augmented_assignment_expression,
       638),
     (mozjs_sym__destructuring_pattern, 1766), (mozjs_sym_ternary_expression, 638),
     (mozjs_sym_binary_expression, 638), (mozjs_sym_unary_expression, 638),
     (mozjs_sym_update_expression, 638), (mozjs_sym_string, 645),
     (mozjs_sym_template_string, 645), (mozjs_sym_regex, 645),
     (mozjs_sym_meta_property, 645), (mozjs_sym_decorator, 1112),
     (mozjs_sym_formal_parameters, 1828), (mozjs_aux_sym_export_statement_repeat1, 1395),
     (mozjs_sym_identifier, 461), (mozjs_anon_sym_export, 463),
     (mozjs_anon_sym_STAR, 307), (mozjs_anon_sym_LBRACE, 465),
     (mozjs_anon_sym_COMMA, 311), (mozjs_anon_sym_import, 390),
     (mozjs_anon_sym_let, 463), (mozjs_anon_sym_await, 467),
     (mozjs_anon_sym_of, 307), (mozjs_anon_sym_LPAREN, 394),
     (mozjs_anon_sym_SEMI, 311), (mozjs_anon_sym_in, 307),
     (mozjs_anon_sym_yield, 469), (mozjs_anon_sym_EQ, 471),
     (mozjs_anon_sym_LBRACK, 473), (mozjs_anon_sym_LT, 404),
     (mozjs_anon_sym_GT, 307), (mozjs_anon_sym_DOT, 307),
     (mozjs_anon_sym_DQUOTE, 407), (mozjs_anon_sym_SQUOTE, 409),
     (mozjs_anon_sym_class, 411), (mozjs_anon_sym_async, 476),
     (mozjs_anon_sym_function, 415), (mozjs_anon_sym_EQ_GT, 563),
     (mozjs_sym_optional_chain, 311), (mozjs_anon_sym_new, 478),
     (mozjs_anon_sym_PLUS_EQ, 344), (mozjs_anon_sym_DASH_EQ, 344),
     (mozjs_anon_sym_STAR_EQ, 344), (mozjs_anon_sym_SLASH_EQ, 344),
     (mozjs_anon_sym_PERCENT_EQ, 344), (mozjs_anon_sym_CARET_EQ, 344),
     (mozjs_anon_sym_AMP_EQ, 344), (mozjs_anon_sym_PIPE_EQ, 344),
     (mozjs_anon_sym_GT_GT_EQ, 344), (mozjs_anon_sym_GT_GT_GT_EQ, 344),
     (mozjs_anon_sym_LT_LT_EQ, 344), (mozjs_anon_sym_STAR_STAR_EQ, 344),
     (mozjs_anon_sym_AMP_AMP_EQ, 344), (mozjs_anon_sym_PIPE_PIPE_EQ, 344),
     (mozjs_anon_sym_QMARK_QMARK_EQ, 344), (mozjs_anon_sym_AMP_AMP, 307),
     (mozjs_anon_sym_PIPE_PIPE, 307), (mozjs_anon_sym_GT_GT, 307),
     (mozjs_anon_sym_GT_GT_GT, 307), (mozjs_anon_sym_LT_LT, 307),
     (mozjs_anon_sym_AMP, 307), (mozjs_anon_sym_CARET, 307),
     (mozjs_anon_sym_PIPE, 307), (mozjs_anon_sym_PLUS, 480),
     (mozjs_anon_sym_DASH, 480), (mozjs_anon_sym_SLASH, 424),
     (mozjs_anon_sym_PERCENT, 307), (mozjs_anon_sym_STAR_STAR, 307),
     (mozjs_anon_sym_LT_EQ, 311), (mozjs_anon_sym_EQ_EQ, 307),
     (mozjs_anon_sym_EQ_EQ_EQ, 311), (mozjs_anon_sym_BANG_EQ, 307),
     (mozjs_anon_sym_BANG_EQ_EQ, 311), (mozjs_anon_sym_GT_EQ, 311),
     (mozjs_anon_sym_QMARK_QMARK, 307), (mozjs_anon_sym_instanceof, 307),
     (mozjs_anon_sym_BANG, 483), (mozjs_anon_sym_TILDE, 485),
     (mozjs_anon_sym_typeof, 483), (mozjs_anon_sym_void, 483),
     (mozjs_anon_sym_delete, 483), (mozjs_anon_sym_PLUS_PLUS, 487),
     (mozjs_anon_sym_DASH_DASH, 487), (mozjs_sym_comment, 5),
     (mozjs_anon_sym_BQUOTE, 434), (mozjs_sym_number, 437),
     (mozjs_sym_private_property_identifier, 490), (mozjs_sym_this, 441),
     (mozjs_sym_super, 441), (mozjs_sym_true, 441),
     (mozjs_sym_false, 441), (mozjs_sym_null, 441),
     (mozjs_sym_undefined, 492), (mozjs_anon_sym_AT, 93),
     (mozjs_anon_sym_static, 463), (mozjs_anon_sym_get, 463),
     (mozjs_anon_sym_set, 463), (mozjs_sym__automatic_semicolon, 311),
     (mozjs_sym__ternary_qmark, 311), (mozjs_sym_html_comment, 5)]"

definition mozjs_parse_row_69 :: "(TSSymbol \<times> nat) list" where
  "mozjs_parse_row_69 =
    [(mozjs_sym_export_statement, 422), (mozjs_sym_declaration, 422),
     (mozjs_sym_import, 1333), (mozjs_sym_import_statement, 422),
     (mozjs_sym_statement, 457), (mozjs_sym_expression_statement, 422),
     (mozjs_sym_variable_declaration, 427), (mozjs_sym_lexical_declaration, 427),
     (mozjs_sym_using_declaration, 427), (mozjs_sym_statement_block, 422),
     (mozjs_sym_if_statement, 422), (mozjs_sym_switch_statement, 422),
     (mozjs_sym_for_statement, 422), (mozjs_sym_for_in_statement, 422),
     (mozjs_sym_while_statement, 422), (mozjs_sym_do_statement, 422),
     (mozjs_sym_try_statement, 422), (mozjs_sym_with_statement, 422),
     (mozjs_sym_break_statement, 422), (mozjs_sym_continue_statement, 422),
     (mozjs_sym_debugger_statement, 422), (mozjs_sym_return_statement, 422),
     (mozjs_sym_throw_statement, 422), (mozjs_sym_empty_statement, 422),
     (mozjs_sym_labeled_statement, 422), (mozjs_sym_parenthesized_expression, 556),
     (mozjs_sym_expression, 823), (mozjs_sym_primary_expression, 693),
     (mozjs_sym_yield_expression, 743), (mozjs_sym_object, 793),
     (mozjs_sym_object_pattern, 1845), (mozjs_sym_array, 793),
     (mozjs_sym_array_pattern, 1845), (mozjs_sym_jsx_element, 743),
     (mozjs_sym_jsx_opening_element, 1158), (mozjs_sym_jsx_self_closing_element, 743),
     (mozjs_sym_class, 793), (mozjs_sym_class_declaration, 427),
     (mozjs_sym_function_expression, 793), (mozjs_sym_function_declaration, 427),
     (mozjs_sym_generator_function, 793), (mozjs_sym_generator_function_declaration, 427),
     (mozjs_sym_arrow_function, 793), (mozjs_sym_call_expression, 793),
     (mozjs_sym_new_expression, 692), (mozjs_sym_await_expression, 743),
     (mozjs_sym_member_expression, 556), (mozjs_sym_subscript_expression, 556),
     (mozjs_sym_assignment_expression, 743), (mozjs_sym__augmented_assignment_lhs, 1146),
     (mozjs_sym_augmented_assignment_expression, 743), (mozjs_sym__destructuring_pattern, 1845),
     (mozjs_sym_ternary_expression, 743), (mozjs_sym_binary_expression, 743),
     (mozjs_sym_unary_expression, 743), (mozjs_sym_update_expression, 743),
     (mozjs_sym_sequence_expression, 1743), (mozjs_sym_string, 793),
     (mozjs_sym_template_string, 793), (mozjs_sym_regex, 793),
     (mozjs_sym_meta_property, 793), (mozjs_sym_decorator, 1112),
     (mozjs_sym_formal_parameters, 1847), (mozjs_aux_sym_export_statement_repeat1, 1278),
     (mozjs_sym_identifier, 9), (mozjs_anon_sym_export, 13),
     (mozjs_anon_sym_LBRACE, 15), (mozjs_anon_sym_import, 17),
     (mozjs_anon_sym_with, 19), (mozjs_anon_sym_var, 21),
     (mozjs_anon_sym_let, 23), (mozjs_anon_sym_const, 25),
     (mozjs_anon_sym_using, 27), (mozjs_anon_sym_await, 29),
     (mozjs_anon_sym_if, 31), (mozjs_anon_sym_switch, 33),
     (mozjs_anon_sym_for, 35), (mozjs_anon_sym_LPAREN, 37),
     (mozjs_anon_sym_SEMI, 39), (mozjs_anon_sym_while, 41),
     (mozjs_anon_sym_do, 43), (mozjs_anon_sym_try, 45),
     (mozjs_anon_sym_break, 47), (mozjs_anon_sym_continue, 49),
     (mozjs_anon_sym_debugger, 51), (mozjs_anon_sym_return, 53),
     (mozjs_anon_sym_throw, 55), (mozjs_anon_sym_yield, 57),
     (mozjs_anon_sym_LBRACK, 59), (mozjs_anon_sym_LT, 61),
     (mozjs_anon_sym_DQUOTE, 63), (mozjs_anon_sym_SQUOTE, 65),
     (mozjs_anon_sym_class, 67), (mozjs_anon_sym_async, 69),
     (mozjs_anon_sym_function, 71), (mozjs_anon_sym_new, 73),
     (mozjs_anon_sym_PLUS, 75), (mozjs_anon_sym_DASH, 75),
     (mozjs_anon_sym_SLASH, 77), (mozjs_anon_sym_BANG, 79),
     (mozjs_anon_sym_TILDE, 79), (mozjs_anon_sym_typeof, 75),
     (mozjs_anon_sym_void, 75), (mozjs_anon_sym_delete, 75),
     (mozjs_anon_sym_PLUS_PLUS, 81), (mozjs_anon_sym_DASH_DASH, 81),
     (mozjs_sym_comment, 5), (mozjs_anon_sym_BQUOTE, 83),
     (mozjs_sym_number, 85), (mozjs_sym_private_property_identifier, 87),
     (mozjs_sym_this, 89), (mozjs_sym_super, 89),
     (mozjs_sym_true, 89), (mozjs_sym_false, 89),
     (mozjs_sym_null, 89), (mozjs_sym_undefined, 91),
     (mozjs_anon_sym_AT, 93), (mozjs_anon_sym_static, 95),
     (mozjs_anon_sym_get, 95), (mozjs_anon_sym_set, 95),
     (mozjs_sym_preproc, 97), (mozjs_sym_html_comment, 5)]"

definition mozjs_parse_row_70 :: "(TSSymbol \<times> nat) list" where
  "mozjs_parse_row_70 =
    [(mozjs_sym_export_statement, 422), (mozjs_sym_declaration, 422),
     (mozjs_sym_import, 1333), (mozjs_sym_import_statement, 422),
     (mozjs_sym_statement, 445), (mozjs_sym_expression_statement, 422),
     (mozjs_sym_variable_declaration, 427), (mozjs_sym_lexical_declaration, 427),
     (mozjs_sym_using_declaration, 427), (mozjs_sym_statement_block, 422),
     (mozjs_sym_if_statement, 422), (mozjs_sym_switch_statement, 422),
     (mozjs_sym_for_statement, 422), (mozjs_sym_for_in_statement, 422),
     (mozjs_sym_while_statement, 422), (mozjs_sym_do_statement, 422),
     (mozjs_sym_try_statement, 422), (mozjs_sym_with_statement, 422),
     (mozjs_sym_break_statement, 422), (mozjs_sym_continue_statement, 422),
     (mozjs_sym_debugger_statement, 422), (mozjs_sym_return_statement, 422),
     (mozjs_sym_throw_statement, 422), (mozjs_sym_empty_statement, 422),
     (mozjs_sym_labeled_statement, 422), (mozjs_sym_parenthesized_expression, 556),
     (mozjs_sym_expression, 823), (mozjs_sym_primary_expression, 693),
     (mozjs_sym_yield_expression, 743), (mozjs_sym_object, 793),
     (mozjs_sym_object_pattern, 1845), (mozjs_sym_array, 793),
     (mozjs_sym_array_pattern, 1845), (mozjs_sym_jsx_element, 743),
     (mozjs_sym_jsx_opening_element, 1158), (mozjs_sym_jsx_self_closing_element, 743),
     (mozjs_sym_class, 793), (mozjs_sym_class_declaration, 427),
     (mozjs_sym_function_expression, 793), (mozjs_sym_function_declaration, 427),
     (mozjs_sym_generator_function, 793), (mozjs_sym_generator_function_declaration, 427),
     (mozjs_sym_arrow_function, 793), (mozjs_sym_call_expression, 793),
     (mozjs_sym_new_expression, 692), (mozjs_sym_await_expression, 743),
     (mozjs_sym_member_expression, 556), (mozjs_sym_subscript_expression, 556),
     (mozjs_sym_assignment_expression, 743), (mozjs_sym__augmented_assignment_lhs, 1146),
     (mozjs_sym_augmented_assignment_expression, 743), (mozjs_sym__destructuring_pattern, 1845),
     (mozjs_sym_ternary_expression, 743), (mozjs_sym_binary_expression, 743),
     (mozjs_sym_unary_expression, 743), (mozjs_sym_update_expression, 743),
     (mozjs_sym_sequence_expression, 1743), (mozjs_sym_string, 793),
     (mozjs_sym_template_string, 793), (mozjs_sym_regex, 793),
     (mozjs_sym_meta_property, 793), (mozjs_sym_decorator, 1112),
     (mozjs_sym_formal_parameters, 1847), (mozjs_aux_sym_export_statement_repeat1, 1278),
     (mozjs_sym_identifier, 9), (mozjs_anon_sym_export, 13),
     (mozjs_anon_sym_LBRACE, 15), (mozjs_anon_sym_import, 17),
     (mozjs_anon_sym_with, 19), (mozjs_anon_sym_var, 21),
     (mozjs_anon_sym_let, 23), (mozjs_anon_sym_const, 25),
     (mozjs_anon_sym_using, 27), (mozjs_anon_sym_await, 29),
     (mozjs_anon_sym_if, 31), (mozjs_anon_sym_switch, 33),
     (mozjs_anon_sym_for, 35), (mozjs_anon_sym_LPAREN, 37),
     (mozjs_anon_sym_SEMI, 39), (mozjs_anon_sym_while, 41),
     (mozjs_anon_sym_do, 43), (mozjs_anon_sym_try, 45),
     (mozjs_anon_sym_break, 47), (mozjs_anon_sym_continue, 49),
     (mozjs_anon_sym_debugger, 51), (mozjs_anon_sym_return, 53),
     (mozjs_anon_sym_throw, 55), (mozjs_anon_sym_yield, 57),
     (mozjs_anon_sym_LBRACK, 59), (mozjs_anon_sym_LT, 61),
     (mozjs_anon_sym_DQUOTE, 63), (mozjs_anon_sym_SQUOTE, 65),
     (mozjs_anon_sym_class, 67), (mozjs_anon_sym_async, 69),
     (mozjs_anon_sym_function, 71), (mozjs_anon_sym_new, 73),
     (mozjs_anon_sym_PLUS, 75), (mozjs_anon_sym_DASH, 75),
     (mozjs_anon_sym_SLASH, 77), (mozjs_anon_sym_BANG, 79),
     (mozjs_anon_sym_TILDE, 79), (mozjs_anon_sym_typeof, 75),
     (mozjs_anon_sym_void, 75), (mozjs_anon_sym_delete, 75),
     (mozjs_anon_sym_PLUS_PLUS, 81), (mozjs_anon_sym_DASH_DASH, 81),
     (mozjs_sym_comment, 5), (mozjs_anon_sym_BQUOTE, 83),
     (mozjs_sym_number, 85), (mozjs_sym_private_property_identifier, 87),
     (mozjs_sym_this, 89), (mozjs_sym_super, 89),
     (mozjs_sym_true, 89), (mozjs_sym_false, 89),
     (mozjs_sym_null, 89), (mozjs_sym_undefined, 91),
     (mozjs_anon_sym_AT, 93), (mozjs_anon_sym_static, 95),
     (mozjs_anon_sym_get, 95), (mozjs_anon_sym_set, 95),
     (mozjs_sym_preproc, 97), (mozjs_sym_html_comment, 5)]"

definition mozjs_parse_row_71 :: "(TSSymbol \<times> nat) list" where
  "mozjs_parse_row_71 =
    [(mozjs_sym_import, 1333), (mozjs_sym_parenthesized_expression, 556),
     (mozjs_sym_expression, 698), (mozjs_sym_primary_expression, 693),
     (mozjs_sym_yield_expression, 743), (mozjs_sym_object, 793),
     (mozjs_sym_object_pattern, 1845), (mozjs_sym_array, 793),
     (mozjs_sym_array_pattern, 1845), (mozjs_sym_jsx_element, 743),
     (mozjs_sym_jsx_opening_element, 1158), (mozjs_sym_jsx_self_closing_element, 743),
     (mozjs_sym_class, 793), (mozjs_sym_function_expression, 793),
     (mozjs_sym_generator_function, 793), (mozjs_sym_arrow_function, 793),
     (mozjs_sym_call_expression, 793), (mozjs_sym_new_expression, 692),
     (mozjs_sym_await_expression, 743), (mozjs_sym_member_expression, 556),
     (mozjs_sym_subscript_expression, 556), (mozjs_sym_assignment_expression, 743),
     (mozjs_sym__augmented_assignment_lhs, 1146), (mozjs_sym_augmented_assignment_expression,
       743),
     (mozjs_sym__destructuring_pattern, 1845), (mozjs_sym_ternary_expression, 743),
     (mozjs_sym_binary_expression, 743), (mozjs_sym_unary_expression, 743),
     (mozjs_sym_update_expression, 743), (mozjs_sym_string, 793),
     (mozjs_sym_template_string, 793), (mozjs_sym_regex, 793),
     (mozjs_sym_meta_property, 793), (mozjs_sym_decorator, 1112),
     (mozjs_sym_formal_parameters, 1847), (mozjs_aux_sym_export_statement_repeat1, 1331),
     (mozjs_sym_identifier, 303), (mozjs_anon_sym_export, 305),
     (mozjs_anon_sym_STAR, 307), (mozjs_anon_sym_LBRACE, 309),
     (mozjs_anon_sym_import, 315), (mozjs_anon_sym_let, 305),
     (mozjs_anon_sym_using, 317), (mozjs_anon_sym_await, 319),
     (mozjs_anon_sym_LPAREN, 494), (mozjs_anon_sym_SEMI, 311),
     (mozjs_anon_sym_in, 307), (mozjs_anon_sym_yield, 57),
     (mozjs_anon_sym_EQ, 499), (mozjs_anon_sym_LBRACK, 330),
     (mozjs_anon_sym_LT, 333), (mozjs_anon_sym_GT, 307),
     (mozjs_anon_sym_DOT, 307), (mozjs_anon_sym_DQUOTE, 63),
     (mozjs_anon_sym_SQUOTE, 65), (mozjs_anon_sym_class, 336),
     (mozjs_anon_sym_async, 338), (mozjs_anon_sym_function, 340),
     (mozjs_anon_sym_EQ_GT, 342), (mozjs_sym_optional_chain, 311),
     (mozjs_anon_sym_new, 73), (mozjs_anon_sym_PLUS_EQ, 344),
     (mozjs_anon_sym_DASH_EQ, 344), (mozjs_anon_sym_STAR_EQ, 344),
     (mozjs_anon_sym_SLASH_EQ, 344), (mozjs_anon_sym_PERCENT_EQ, 344),
     (mozjs_anon_sym_CARET_EQ, 344), (mozjs_anon_sym_AMP_EQ, 344),
     (mozjs_anon_sym_PIPE_EQ, 344), (mozjs_anon_sym_GT_GT_EQ, 344),
     (mozjs_anon_sym_GT_GT_GT_EQ, 344), (mozjs_anon_sym_LT_LT_EQ, 344),
     (mozjs_anon_sym_STAR_STAR_EQ, 344), (mozjs_anon_sym_AMP_AMP_EQ, 344),
     (mozjs_anon_sym_PIPE_PIPE_EQ, 344), (mozjs_anon_sym_QMARK_QMARK_EQ, 344),
     (mozjs_anon_sym_AMP_AMP, 307), (mozjs_anon_sym_PIPE_PIPE, 307),
     (mozjs_anon_sym_GT_GT, 307), (mozjs_anon_sym_GT_GT_GT, 307),
     (mozjs_anon_sym_LT_LT, 307), (mozjs_anon_sym_AMP, 307),
     (mozjs_anon_sym_CARET, 307), (mozjs_anon_sym_PIPE, 307),
     (mozjs_anon_sym_PLUS, 346), (mozjs_anon_sym_DASH, 346),
     (mozjs_anon_sym_SLASH, 349), (mozjs_anon_sym_PERCENT, 307),
     (mozjs_anon_sym_STAR_STAR, 307), (mozjs_anon_sym_LT_EQ, 311),
     (mozjs_anon_sym_EQ_EQ, 307), (mozjs_anon_sym_EQ_EQ_EQ, 311),
     (mozjs_anon_sym_BANG_EQ, 307), (mozjs_anon_sym_BANG_EQ_EQ, 311),
     (mozjs_anon_sym_GT_EQ, 311), (mozjs_anon_sym_QMARK_QMARK, 307),
     (mozjs_anon_sym_instanceof, 307), (mozjs_anon_sym_BANG, 75),
     (mozjs_anon_sym_TILDE, 79), (mozjs_anon_sym_typeof, 75),
     (mozjs_anon_sym_void, 75), (mozjs_anon_sym_delete, 75),
     (mozjs_anon_sym_PLUS_PLUS, 352), (mozjs_anon_sym_DASH_DASH, 352),
     (mozjs_sym_comment, 5), (mozjs_anon_sym_BQUOTE, 355),
     (mozjs_sym_number, 85), (mozjs_sym_private_property_identifier, 358),
     (mozjs_sym_this, 89), (mozjs_sym_super, 89),
     (mozjs_sym_true, 89), (mozjs_sym_false, 89),
     (mozjs_sym_null, 89), (mozjs_sym_undefined, 91),
     (mozjs_anon_sym_AT, 93), (mozjs_anon_sym_static, 305),
     (mozjs_anon_sym_get, 305), (mozjs_anon_sym_set, 305),
     (mozjs_sym__automatic_semicolon, 311), (mozjs_sym__ternary_qmark, 311),
     (mozjs_sym_html_comment, 5)]"

definition mozjs_parse_row_72 :: "(TSSymbol \<times> nat) list" where
  "mozjs_parse_row_72 =
    [(mozjs_sym_import, 1340), (mozjs_sym_parenthesized_expression, 525),
     (mozjs_sym_expression, 586), (mozjs_sym_primary_expression, 584),
     (mozjs_sym_yield_expression, 638), (mozjs_sym_object, 645),
     (mozjs_sym_object_pattern, 1827), (mozjs_sym_array, 645),
     (mozjs_sym_array_pattern, 1827), (mozjs_sym_jsx_element, 638),
     (mozjs_sym_jsx_opening_element, 1152), (mozjs_sym_jsx_self_closing_element, 638),
     (mozjs_sym_class, 645), (mozjs_sym_function_expression, 645),
     (mozjs_sym_generator_function, 645), (mozjs_sym_arrow_function, 645),
     (mozjs_sym_call_expression, 645), (mozjs_sym_new_expression, 587),
     (mozjs_sym_await_expression, 638), (mozjs_sym_member_expression, 525),
     (mozjs_sym_subscript_expression, 525), (mozjs_sym_assignment_expression, 638),
     (mozjs_sym__augmented_assignment_lhs, 1145), (mozjs_sym_augmented_assignment_expression,
       638),
     (mozjs_sym__destructuring_pattern, 1827), (mozjs_sym_ternary_expression, 638),
     (mozjs_sym_binary_expression, 638), (mozjs_sym_unary_expression, 638),
     (mozjs_sym_update_expression, 638), (mozjs_sym_string, 645),
     (mozjs_sym_template_string, 645), (mozjs_sym_regex, 645),
     (mozjs_sym_meta_property, 645), (mozjs_sym_decorator, 1112),
     (mozjs_sym_formal_parameters, 1777), (mozjs_aux_sym_export_statement_repeat1, 1395),
     (mozjs_sym_identifier, 384), (mozjs_anon_sym_export, 386),
     (mozjs_anon_sym_STAR, 307), (mozjs_anon_sym_LBRACE, 388),
     (mozjs_anon_sym_COMMA, 584), (mozjs_anon_sym_RBRACE, 584),
     (mozjs_anon_sym_import, 390), (mozjs_anon_sym_let, 386),
     (mozjs_anon_sym_await, 392), (mozjs_anon_sym_LPAREN, 394),
     (mozjs_anon_sym_in, 307), (mozjs_anon_sym_yield, 397),
     (mozjs_anon_sym_EQ, 399), (mozjs_anon_sym_LBRACK, 401),
     (mozjs_anon_sym_RBRACK, 584), (mozjs_anon_sym_LT, 404),
     (mozjs_anon_sym_GT, 307), (mozjs_anon_sym_DOT, 307),
     (mozjs_anon_sym_DQUOTE, 407), (mozjs_anon_sym_SQUOTE, 409),
     (mozjs_anon_sym_class, 411), (mozjs_anon_sym_async, 413),
     (mozjs_anon_sym_function, 415), (mozjs_anon_sym_EQ_GT, 417),
     (mozjs_sym_optional_chain, 311), (mozjs_anon_sym_new, 419),
     (mozjs_anon_sym_PLUS_EQ, 344), (mozjs_anon_sym_DASH_EQ, 344),
     (mozjs_anon_sym_STAR_EQ, 344), (mozjs_anon_sym_SLASH_EQ, 344),
     (mozjs_anon_sym_PERCENT_EQ, 344), (mozjs_anon_sym_CARET_EQ, 344),
     (mozjs_anon_sym_AMP_EQ, 344), (mozjs_anon_sym_PIPE_EQ, 344),
     (mozjs_anon_sym_GT_GT_EQ, 344), (mozjs_anon_sym_GT_GT_GT_EQ, 344),
     (mozjs_anon_sym_LT_LT_EQ, 344), (mozjs_anon_sym_STAR_STAR_EQ, 344),
     (mozjs_anon_sym_AMP_AMP_EQ, 344), (mozjs_anon_sym_PIPE_PIPE_EQ, 344),
     (mozjs_anon_sym_QMARK_QMARK_EQ, 344), (mozjs_anon_sym_AMP_AMP, 307),
     (mozjs_anon_sym_PIPE_PIPE, 307), (mozjs_anon_sym_GT_GT, 307),
     (mozjs_anon_sym_GT_GT_GT, 307), (mozjs_anon_sym_LT_LT, 307),
     (mozjs_anon_sym_AMP, 307), (mozjs_anon_sym_CARET, 307),
     (mozjs_anon_sym_PIPE, 307), (mozjs_anon_sym_PLUS, 421),
     (mozjs_anon_sym_DASH, 421), (mozjs_anon_sym_SLASH, 424),
     (mozjs_anon_sym_PERCENT, 307), (mozjs_anon_sym_STAR_STAR, 307),
     (mozjs_anon_sym_LT_EQ, 311), (mozjs_anon_sym_EQ_EQ, 307),
     (mozjs_anon_sym_EQ_EQ_EQ, 311), (mozjs_anon_sym_BANG_EQ, 307),
     (mozjs_anon_sym_BANG_EQ_EQ, 311), (mozjs_anon_sym_GT_EQ, 311),
     (mozjs_anon_sym_QMARK_QMARK, 307), (mozjs_anon_sym_instanceof, 307),
     (mozjs_anon_sym_BANG, 427), (mozjs_anon_sym_TILDE, 429),
     (mozjs_anon_sym_typeof, 427), (mozjs_anon_sym_void, 427),
     (mozjs_anon_sym_delete, 427), (mozjs_anon_sym_PLUS_PLUS, 431),
     (mozjs_anon_sym_DASH_DASH, 431), (mozjs_sym_comment, 5),
     (mozjs_anon_sym_BQUOTE, 434), (mozjs_sym_number, 437),
     (mozjs_sym_private_property_identifier, 439), (mozjs_sym_this, 441),
     (mozjs_sym_super, 441), (mozjs_sym_true, 441),
     (mozjs_sym_false, 441), (mozjs_sym_null, 441),
     (mozjs_sym_undefined, 443), (mozjs_anon_sym_AT, 93),
     (mozjs_anon_sym_static, 386), (mozjs_anon_sym_get, 386),
     (mozjs_anon_sym_set, 386), (mozjs_sym__ternary_qmark, 311),
     (mozjs_sym_html_comment, 5)]"

definition mozjs_parse_row_73 :: "(TSSymbol \<times> nat) list" where
  "mozjs_parse_row_73 =
    [(mozjs_sym_import, 1340), (mozjs_sym_parenthesized_expression, 499),
     (mozjs_sym_expression, 586), (mozjs_sym_primary_expression, 584),
     (mozjs_sym_yield_expression, 638), (mozjs_sym_object, 645),
     (mozjs_sym_object_pattern, 1766), (mozjs_sym_array, 645),
     (mozjs_sym_array_pattern, 1766), (mozjs_sym_jsx_element, 638),
     (mozjs_sym_jsx_opening_element, 1152), (mozjs_sym_jsx_self_closing_element, 638),
     (mozjs_sym_class, 645), (mozjs_sym_function_expression, 645),
     (mozjs_sym_generator_function, 645), (mozjs_sym_arrow_function, 645),
     (mozjs_sym_call_expression, 645), (mozjs_sym_new_expression, 587),
     (mozjs_sym_await_expression, 638), (mozjs_sym_member_expression, 499),
     (mozjs_sym_subscript_expression, 499), (mozjs_sym_assignment_expression, 638),
     (mozjs_sym__augmented_assignment_lhs, 1144), (mozjs_sym_augmented_assignment_expression,
       638),
     (mozjs_sym__destructuring_pattern, 1766), (mozjs_sym_ternary_expression, 638),
     (mozjs_sym_binary_expression, 638), (mozjs_sym_unary_expression, 638),
     (mozjs_sym_update_expression, 638), (mozjs_sym_string, 645),
     (mozjs_sym_template_string, 645), (mozjs_sym_regex, 645),
     (mozjs_sym_meta_property, 645), (mozjs_sym_decorator, 1112),
     (mozjs_sym_formal_parameters, 1828), (mozjs_aux_sym_export_statement_repeat1, 1395),
     (mozjs_sym_identifier, 461), (mozjs_anon_sym_export, 463),
     (mozjs_anon_sym_STAR, 307), (mozjs_anon_sym_LBRACE, 465),
     (mozjs_anon_sym_import, 390), (mozjs_anon_sym_let, 463),
     (mozjs_anon_sym_using, 544), (mozjs_anon_sym_await, 467),
     (mozjs_anon_sym_of, 546), (mozjs_anon_sym_LPAREN, 394),
     (mozjs_anon_sym_in, 548), (mozjs_anon_sym_yield, 469),
     (mozjs_anon_sym_EQ, 471), (mozjs_anon_sym_LBRACK, 473),
     (mozjs_anon_sym_LT, 404), (mozjs_anon_sym_GT, 307),
     (mozjs_anon_sym_DOT, 307), (mozjs_anon_sym_DQUOTE, 407),
     (mozjs_anon_sym_SQUOTE, 409), (mozjs_anon_sym_class, 411),
     (mozjs_anon_sym_async, 476), (mozjs_anon_sym_function, 415),
     (mozjs_anon_sym_EQ_GT, 534), (mozjs_sym_optional_chain, 311),
     (mozjs_anon_sym_new, 478), (mozjs_anon_sym_PLUS_EQ, 344),
     (mozjs_anon_sym_DASH_EQ, 344), (mozjs_anon_sym_STAR_EQ, 344),
     (mozjs_anon_sym_SLASH_EQ, 344), (mozjs_anon_sym_PERCENT_EQ, 344),
     (mozjs_anon_sym_CARET_EQ, 344), (mozjs_anon_sym_AMP_EQ, 344),
     (mozjs_anon_sym_PIPE_EQ, 344), (mozjs_anon_sym_GT_GT_EQ, 344),
     (mozjs_anon_sym_GT_GT_GT_EQ, 344), (mozjs_anon_sym_LT_LT_EQ, 344),
     (mozjs_anon_sym_STAR_STAR_EQ, 344), (mozjs_anon_sym_AMP_AMP_EQ, 344),
     (mozjs_anon_sym_PIPE_PIPE_EQ, 344), (mozjs_anon_sym_QMARK_QMARK_EQ, 344),
     (mozjs_anon_sym_AMP_AMP, 307), (mozjs_anon_sym_PIPE_PIPE, 307),
     (mozjs_anon_sym_GT_GT, 307), (mozjs_anon_sym_GT_GT_GT, 307),
     (mozjs_anon_sym_LT_LT, 307), (mozjs_anon_sym_AMP, 307),
     (mozjs_anon_sym_CARET, 307), (mozjs_anon_sym_PIPE, 307),
     (mozjs_anon_sym_PLUS, 480), (mozjs_anon_sym_DASH, 480),
     (mozjs_anon_sym_SLASH, 424), (mozjs_anon_sym_PERCENT, 307),
     (mozjs_anon_sym_STAR_STAR, 307), (mozjs_anon_sym_LT_EQ, 311),
     (mozjs_anon_sym_EQ_EQ, 307), (mozjs_anon_sym_EQ_EQ_EQ, 311),
     (mozjs_anon_sym_BANG_EQ, 307), (mozjs_anon_sym_BANG_EQ_EQ, 311),
     (mozjs_anon_sym_GT_EQ, 311), (mozjs_anon_sym_QMARK_QMARK, 307),
     (mozjs_anon_sym_instanceof, 307), (mozjs_anon_sym_BANG, 483),
     (mozjs_anon_sym_TILDE, 485), (mozjs_anon_sym_typeof, 483),
     (mozjs_anon_sym_void, 483), (mozjs_anon_sym_delete, 483),
     (mozjs_anon_sym_PLUS_PLUS, 487), (mozjs_anon_sym_DASH_DASH, 487),
     (mozjs_sym_comment, 5), (mozjs_anon_sym_BQUOTE, 434),
     (mozjs_sym_number, 437), (mozjs_sym_private_property_identifier, 490),
     (mozjs_sym_this, 441), (mozjs_sym_super, 441),
     (mozjs_sym_true, 441), (mozjs_sym_false, 441),
     (mozjs_sym_null, 441), (mozjs_sym_undefined, 492),
     (mozjs_anon_sym_AT, 93), (mozjs_anon_sym_static, 463),
     (mozjs_anon_sym_get, 463), (mozjs_anon_sym_set, 463),
     (mozjs_sym__ternary_qmark, 311), (mozjs_sym_html_comment, 5)]"

definition mozjs_parse_row_74 :: "(TSSymbol \<times> nat) list" where
  "mozjs_parse_row_74 =
    [(mozjs_sym_import, 1340), (mozjs_sym_parenthesized_expression, 525),
     (mozjs_sym_expression, 586), (mozjs_sym_primary_expression, 584),
     (mozjs_sym_yield_expression, 638), (mozjs_sym_object, 645),
     (mozjs_sym_object_pattern, 1827), (mozjs_sym_array, 645),
     (mozjs_sym_array_pattern, 1827), (mozjs_sym_jsx_element, 638),
     (mozjs_sym_jsx_opening_element, 1152), (mozjs_sym_jsx_self_closing_element, 638),
     (mozjs_sym_class, 645), (mozjs_sym_function_expression, 645),
     (mozjs_sym_generator_function, 645), (mozjs_sym_arrow_function, 645),
     (mozjs_sym_call_expression, 645), (mozjs_sym_new_expression, 587),
     (mozjs_sym_await_expression, 638), (mozjs_sym_member_expression, 525),
     (mozjs_sym_subscript_expression, 525), (mozjs_sym_assignment_expression, 638),
     (mozjs_sym__augmented_assignment_lhs, 1145), (mozjs_sym_augmented_assignment_expression,
       638),
     (mozjs_sym__destructuring_pattern, 1827), (mozjs_sym_ternary_expression, 638),
     (mozjs_sym_binary_expression, 638), (mozjs_sym_unary_expression, 638),
     (mozjs_sym_update_expression, 638), (mozjs_sym_string, 645),
     (mozjs_sym_template_string, 645), (mozjs_sym_regex, 645),
     (mozjs_sym_meta_property, 645), (mozjs_sym_decorator, 1112),
     (mozjs_sym_formal_parameters, 1777), (mozjs_aux_sym_export_statement_repeat1, 1395),
     (mozjs_sym_identifier, 384), (mozjs_anon_sym_export, 386),
     (mozjs_anon_sym_STAR, 307), (mozjs_anon_sym_LBRACE, 388),
     (mozjs_anon_sym_COMMA, 529), (mozjs_anon_sym_import, 390),
     (mozjs_anon_sym_let, 386), (mozjs_anon_sym_await, 392),
     (mozjs_anon_sym_LPAREN, 394), (mozjs_anon_sym_in, 307),
     (mozjs_anon_sym_yield, 397), (mozjs_anon_sym_EQ, 541),
     (mozjs_anon_sym_LBRACK, 401), (mozjs_anon_sym_RBRACK, 538),
     (mozjs_anon_sym_LT, 404), (mozjs_anon_sym_GT, 307),
     (mozjs_anon_sym_DOT, 307), (mozjs_anon_sym_DQUOTE, 407),
     (mozjs_anon_sym_SQUOTE, 409), (mozjs_anon_sym_class, 411),
     (mozjs_anon_sym_async, 413), (mozjs_anon_sym_function, 415),
     (mozjs_anon_sym_EQ_GT, 417), (mozjs_sym_optional_chain, 311),
     (mozjs_anon_sym_new, 419), (mozjs_anon_sym_PLUS_EQ, 344),
     (mozjs_anon_sym_DASH_EQ, 344), (mozjs_anon_sym_STAR_EQ, 344),
     (mozjs_anon_sym_SLASH_EQ, 344), (mozjs_anon_sym_PERCENT_EQ, 344),
     (mozjs_anon_sym_CARET_EQ, 344), (mozjs_anon_sym_AMP_EQ, 344),
     (mozjs_anon_sym_PIPE_EQ, 344), (mozjs_anon_sym_GT_GT_EQ, 344),
     (mozjs_anon_sym_GT_GT_GT_EQ, 344), (mozjs_anon_sym_LT_LT_EQ, 344),
     (mozjs_anon_sym_STAR_STAR_EQ, 344), (mozjs_anon_sym_AMP_AMP_EQ, 344),
     (mozjs_anon_sym_PIPE_PIPE_EQ, 344), (mozjs_anon_sym_QMARK_QMARK_EQ, 344),
     (mozjs_anon_sym_AMP_AMP, 307), (mozjs_anon_sym_PIPE_PIPE, 307),
     (mozjs_anon_sym_GT_GT, 307), (mozjs_anon_sym_GT_GT_GT, 307),
     (mozjs_anon_sym_LT_LT, 307), (mozjs_anon_sym_AMP, 307),
     (mozjs_anon_sym_CARET, 307), (mozjs_anon_sym_PIPE, 307),
     (mozjs_anon_sym_PLUS, 421), (mozjs_anon_sym_DASH, 421),
     (mozjs_anon_sym_SLASH, 424), (mozjs_anon_sym_PERCENT, 307),
     (mozjs_anon_sym_STAR_STAR, 307), (mozjs_anon_sym_LT_EQ, 311),
     (mozjs_anon_sym_EQ_EQ, 307), (mozjs_anon_sym_EQ_EQ_EQ, 311),
     (mozjs_anon_sym_BANG_EQ, 307), (mozjs_anon_sym_BANG_EQ_EQ, 311),
     (mozjs_anon_sym_GT_EQ, 311), (mozjs_anon_sym_QMARK_QMARK, 307),
     (mozjs_anon_sym_instanceof, 307), (mozjs_anon_sym_BANG, 427),
     (mozjs_anon_sym_TILDE, 429), (mozjs_anon_sym_typeof, 427),
     (mozjs_anon_sym_void, 427), (mozjs_anon_sym_delete, 427),
     (mozjs_anon_sym_PLUS_PLUS, 431), (mozjs_anon_sym_DASH_DASH, 431),
     (mozjs_sym_comment, 5), (mozjs_anon_sym_BQUOTE, 434),
     (mozjs_sym_number, 437), (mozjs_sym_private_property_identifier, 439),
     (mozjs_sym_this, 441), (mozjs_sym_super, 441),
     (mozjs_sym_true, 441), (mozjs_sym_false, 441),
     (mozjs_sym_null, 441), (mozjs_sym_undefined, 443),
     (mozjs_anon_sym_AT, 93), (mozjs_anon_sym_static, 386),
     (mozjs_anon_sym_get, 386), (mozjs_anon_sym_set, 386),
     (mozjs_sym__ternary_qmark, 311), (mozjs_sym_html_comment, 5)]"

definition mozjs_parse_row_75 :: "(TSSymbol \<times> nat) list" where
  "mozjs_parse_row_75 =
    [(mozjs_sym_import, 1340), (mozjs_sym_parenthesized_expression, 499),
     (mozjs_sym_expression, 586), (mozjs_sym_primary_expression, 584),
     (mozjs_sym_yield_expression, 638), (mozjs_sym_object, 645),
     (mozjs_sym_object_pattern, 1766), (mozjs_sym_array, 645),
     (mozjs_sym_array_pattern, 1766), (mozjs_sym_jsx_element, 638),
     (mozjs_sym_jsx_opening_element, 1152), (mozjs_sym_jsx_self_closing_element, 638),
     (mozjs_sym_class, 645), (mozjs_sym_function_expression, 645),
     (mozjs_sym_generator_function, 645), (mozjs_sym_arrow_function, 645),
     (mozjs_sym_call_expression, 645), (mozjs_sym_new_expression, 587),
     (mozjs_sym_await_expression, 638), (mozjs_sym_member_expression, 499),
     (mozjs_sym_subscript_expression, 499), (mozjs_sym_assignment_expression, 638),
     (mozjs_sym__augmented_assignment_lhs, 1144), (mozjs_sym_augmented_assignment_expression,
       638),
     (mozjs_sym__destructuring_pattern, 1766), (mozjs_sym_ternary_expression, 638),
     (mozjs_sym_binary_expression, 638), (mozjs_sym_unary_expression, 638),
     (mozjs_sym_update_expression, 638), (mozjs_sym_string, 645),
     (mozjs_sym_template_string, 645), (mozjs_sym_regex, 645),
     (mozjs_sym_meta_property, 645), (mozjs_sym_decorator, 1112),
     (mozjs_sym_formal_parameters, 1828), (mozjs_aux_sym_export_statement_repeat1, 1395),
     (mozjs_sym_identifier, 461), (mozjs_anon_sym_export, 463),
     (mozjs_anon_sym_STAR, 307), (mozjs_anon_sym_LBRACE, 465),
     (mozjs_anon_sym_import, 390), (mozjs_anon_sym_let, 463),
     (mozjs_anon_sym_await, 467), (mozjs_anon_sym_LPAREN, 394),
     (mozjs_anon_sym_in, 307), (mozjs_anon_sym_COLON, 311),
     (mozjs_anon_sym_yield, 469), (mozjs_anon_sym_EQ, 471),
     (mozjs_anon_sym_LBRACK, 473), (mozjs_anon_sym_LT, 404),
     (mozjs_anon_sym_GT, 307), (mozjs_anon_sym_DOT, 307),
     (mozjs_anon_sym_DQUOTE, 407), (mozjs_anon_sym_SQUOTE, 409),
     (mozjs_anon_sym_class, 411), (mozjs_anon_sym_async, 476),
     (mozjs_anon_sym_function, 415), (mozjs_anon_sym_EQ_GT, 534),
     (mozjs_sym_optional_chain, 311), (mozjs_anon_sym_new, 478),
     (mozjs_anon_sym_PLUS_EQ, 344), (mozjs_anon_sym_DASH_EQ, 344),
     (mozjs_anon_sym_STAR_EQ, 344), (mozjs_anon_sym_SLASH_EQ, 344),
     (mozjs_anon_sym_PERCENT_EQ, 344), (mozjs_anon_sym_CARET_EQ, 344),
     (mozjs_anon_sym_AMP_EQ, 344), (mozjs_anon_sym_PIPE_EQ, 344),
     (mozjs_anon_sym_GT_GT_EQ, 344), (mozjs_anon_sym_GT_GT_GT_EQ, 344),
     (mozjs_anon_sym_LT_LT_EQ, 344), (mozjs_anon_sym_STAR_STAR_EQ, 344),
     (mozjs_anon_sym_AMP_AMP_EQ, 344), (mozjs_anon_sym_PIPE_PIPE_EQ, 344),
     (mozjs_anon_sym_QMARK_QMARK_EQ, 344), (mozjs_anon_sym_AMP_AMP, 307),
     (mozjs_anon_sym_PIPE_PIPE, 307), (mozjs_anon_sym_GT_GT, 307),
     (mozjs_anon_sym_GT_GT_GT, 307), (mozjs_anon_sym_LT_LT, 307),
     (mozjs_anon_sym_AMP, 307), (mozjs_anon_sym_CARET, 307),
     (mozjs_anon_sym_PIPE, 307), (mozjs_anon_sym_PLUS, 480),
     (mozjs_anon_sym_DASH, 480), (mozjs_anon_sym_SLASH, 424),
     (mozjs_anon_sym_PERCENT, 307), (mozjs_anon_sym_STAR_STAR, 307),
     (mozjs_anon_sym_LT_EQ, 311), (mozjs_anon_sym_EQ_EQ, 307),
     (mozjs_anon_sym_EQ_EQ_EQ, 311), (mozjs_anon_sym_BANG_EQ, 307),
     (mozjs_anon_sym_BANG_EQ_EQ, 311), (mozjs_anon_sym_GT_EQ, 311),
     (mozjs_anon_sym_QMARK_QMARK, 307), (mozjs_anon_sym_instanceof, 307),
     (mozjs_anon_sym_BANG, 483), (mozjs_anon_sym_TILDE, 485),
     (mozjs_anon_sym_typeof, 483), (mozjs_anon_sym_void, 483),
     (mozjs_anon_sym_delete, 483), (mozjs_anon_sym_PLUS_PLUS, 487),
     (mozjs_anon_sym_DASH_DASH, 487), (mozjs_sym_comment, 5),
     (mozjs_anon_sym_BQUOTE, 434), (mozjs_sym_number, 437),
     (mozjs_sym_private_property_identifier, 490), (mozjs_sym_this, 441),
     (mozjs_sym_super, 441), (mozjs_sym_true, 441),
     (mozjs_sym_false, 441), (mozjs_sym_null, 441),
     (mozjs_sym_undefined, 492), (mozjs_anon_sym_AT, 93),
     (mozjs_anon_sym_static, 463), (mozjs_anon_sym_get, 463),
     (mozjs_anon_sym_set, 463), (mozjs_sym__ternary_qmark, 311),
     (mozjs_sym_html_comment, 5)]"

definition mozjs_parse_row_76 :: "(TSSymbol \<times> nat) list" where
  "mozjs_parse_row_76 =
    [(mozjs_sym_import, 1340), (mozjs_sym_parenthesized_expression, 579),
     (mozjs_sym_expression, 586), (mozjs_sym_primary_expression, 584),
     (mozjs_sym_yield_expression, 638), (mozjs_sym_object, 645),
     (mozjs_sym_object_pattern, 1866), (mozjs_sym_array, 645),
     (mozjs_sym_array_pattern, 1866), (mozjs_sym_jsx_element, 638),
     (mozjs_sym_jsx_opening_element, 1152), (mozjs_sym_jsx_self_closing_element, 638),
     (mozjs_sym_class, 645), (mozjs_sym_function_expression, 645),
     (mozjs_sym_generator_function, 645), (mozjs_sym_arrow_function, 645),
     (mozjs_sym_call_expression, 645), (mozjs_sym_new_expression, 587),
     (mozjs_sym_await_expression, 638), (mozjs_sym_member_expression, 579),
     (mozjs_sym_subscript_expression, 579), (mozjs_sym_assignment_expression, 638),
     (mozjs_sym__augmented_assignment_lhs, 1148), (mozjs_sym_augmented_assignment_expression,
       638),
     (mozjs_sym__destructuring_pattern, 1866), (mozjs_sym_ternary_expression, 638),
     (mozjs_sym_binary_expression, 638), (mozjs_sym_unary_expression, 638),
     (mozjs_sym_update_expression, 638), (mozjs_sym_string, 645),
     (mozjs_sym_template_string, 645), (mozjs_sym_regex, 645),
     (mozjs_sym_meta_property, 645), (mozjs_sym_decorator, 1112),
     (mozjs_sym_formal_parameters, 1788), (mozjs_aux_sym_export_statement_repeat1, 1395),
     (mozjs_sym_identifier, 587), (mozjs_anon_sym_export, 589),
     (mozjs_anon_sym_STAR, 307), (mozjs_anon_sym_LBRACE, 465),
     (mozjs_anon_sym_import, 390), (mozjs_anon_sym_let, 589),
     (mozjs_anon_sym_await, 591), (mozjs_anon_sym_of, 307),
     (mozjs_anon_sym_LPAREN, 394), (mozjs_anon_sym_in, 307),
     (mozjs_anon_sym_yield, 593), (mozjs_anon_sym_EQ, 595),
     (mozjs_anon_sym_LBRACK, 473), (mozjs_anon_sym_LT, 404),
     (mozjs_anon_sym_GT, 307), (mozjs_anon_sym_DOT, 307),
     (mozjs_anon_sym_DQUOTE, 407), (mozjs_anon_sym_SQUOTE, 409),
     (mozjs_anon_sym_class, 411), (mozjs_anon_sym_async, 597),
     (mozjs_anon_sym_function, 415), (mozjs_anon_sym_EQ_GT, 599),
     (mozjs_sym_optional_chain, 311), (mozjs_anon_sym_new, 601),
     (mozjs_anon_sym_PLUS_EQ, 344), (mozjs_anon_sym_DASH_EQ, 344),
     (mozjs_anon_sym_STAR_EQ, 344), (mozjs_anon_sym_SLASH_EQ, 344),
     (mozjs_anon_sym_PERCENT_EQ, 344), (mozjs_anon_sym_CARET_EQ, 344),
     (mozjs_anon_sym_AMP_EQ, 344), (mozjs_anon_sym_PIPE_EQ, 344),
     (mozjs_anon_sym_GT_GT_EQ, 344), (mozjs_anon_sym_GT_GT_GT_EQ, 344),
     (mozjs_anon_sym_LT_LT_EQ, 344), (mozjs_anon_sym_STAR_STAR_EQ, 344),
     (mozjs_anon_sym_AMP_AMP_EQ, 344), (mozjs_anon_sym_PIPE_PIPE_EQ, 344),
     (mozjs_anon_sym_QMARK_QMARK_EQ, 344), (mozjs_anon_sym_AMP_AMP, 307),
     (mozjs_anon_sym_PIPE_PIPE, 307), (mozjs_anon_sym_GT_GT, 307),
     (mozjs_anon_sym_GT_GT_GT, 307), (mozjs_anon_sym_LT_LT, 307),
     (mozjs_anon_sym_AMP, 307), (mozjs_anon_sym_CARET, 307),
     (mozjs_anon_sym_PIPE, 307), (mozjs_anon_sym_PLUS, 603),
     (mozjs_anon_sym_DASH, 603), (mozjs_anon_sym_SLASH, 606),
     (mozjs_anon_sym_PERCENT, 307), (mozjs_anon_sym_STAR_STAR, 307),
     (mozjs_anon_sym_LT_EQ, 311), (mozjs_anon_sym_EQ_EQ, 307),
     (mozjs_anon_sym_EQ_EQ_EQ, 311), (mozjs_anon_sym_BANG_EQ, 307),
     (mozjs_anon_sym_BANG_EQ_EQ, 311), (mozjs_anon_sym_GT_EQ, 311),
     (mozjs_anon_sym_QMARK_QMARK, 307), (mozjs_anon_sym_instanceof, 307),
     (mozjs_anon_sym_BANG, 609), (mozjs_anon_sym_TILDE, 611),
     (mozjs_anon_sym_typeof, 609), (mozjs_anon_sym_void, 609),
     (mozjs_anon_sym_delete, 609), (mozjs_anon_sym_PLUS_PLUS, 613),
     (mozjs_anon_sym_DASH_DASH, 613), (mozjs_sym_comment, 5),
     (mozjs_anon_sym_BQUOTE, 434), (mozjs_sym_number, 437),
     (mozjs_sym_private_property_identifier, 616), (mozjs_sym_this, 441),
     (mozjs_sym_super, 441), (mozjs_sym_true, 441),
     (mozjs_sym_false, 441), (mozjs_sym_null, 441),
     (mozjs_sym_undefined, 618), (mozjs_anon_sym_AT, 93),
     (mozjs_anon_sym_static, 589), (mozjs_anon_sym_get, 589),
     (mozjs_anon_sym_set, 589), (mozjs_sym__ternary_qmark, 311),
     (mozjs_sym_html_comment, 5)]"

definition mozjs_parse_row_77 :: "(TSSymbol \<times> nat) list" where
  "mozjs_parse_row_77 =
    [(mozjs_sym_import, 1340), (mozjs_sym_parenthesized_expression, 499),
     (mozjs_sym_expression, 586), (mozjs_sym_primary_expression, 584),
     (mozjs_sym_yield_expression, 638), (mozjs_sym_object, 645),
     (mozjs_sym_object_pattern, 1766), (mozjs_sym_array, 645),
     (mozjs_sym_array_pattern, 1766), (mozjs_sym_jsx_element, 638),
     (mozjs_sym_jsx_opening_element, 1152), (mozjs_sym_jsx_self_closing_element, 638),
     (mozjs_sym_class, 645), (mozjs_sym_function_expression, 645),
     (mozjs_sym_generator_function, 645), (mozjs_sym_arrow_function, 645),
     (mozjs_sym_call_expression, 645), (mozjs_sym_new_expression, 587),
     (mozjs_sym_await_expression, 638), (mozjs_sym_member_expression, 499),
     (mozjs_sym_subscript_expression, 499), (mozjs_sym_assignment_expression, 638),
     (mozjs_sym__augmented_assignment_lhs, 1144), (mozjs_sym_augmented_assignment_expression,
       638),
     (mozjs_sym__destructuring_pattern, 1766), (mozjs_sym_ternary_expression, 638),
     (mozjs_sym_binary_expression, 638), (mozjs_sym_unary_expression, 638),
     (mozjs_sym_update_expression, 638), (mozjs_sym_string, 645),
     (mozjs_sym_template_string, 645), (mozjs_sym_regex, 645),
     (mozjs_sym_meta_property, 645), (mozjs_sym_decorator, 1112),
     (mozjs_sym_formal_parameters, 1828), (mozjs_aux_sym_export_statement_repeat1, 1395),
     (mozjs_sym_identifier, 461), (mozjs_anon_sym_export, 463),
     (mozjs_anon_sym_STAR, 307), (mozjs_anon_sym_LBRACE, 465),
     (mozjs_anon_sym_import, 390), (mozjs_anon_sym_let, 463),
     (mozjs_anon_sym_await, 467), (mozjs_anon_sym_of, 307),
     (mozjs_anon_sym_LPAREN, 394), (mozjs_anon_sym_in, 307),
     (mozjs_anon_sym_yield, 469), (mozjs_anon_sym_EQ, 471),
     (mozjs_anon_sym_LBRACK, 473), (mozjs_anon_sym_LT, 404),
     (mozjs_anon_sym_GT, 307), (mozjs_anon_sym_DOT, 307),
     (mozjs_anon_sym_DQUOTE, 407), (mozjs_anon_sym_SQUOTE, 409),
     (mozjs_anon_sym_class, 411), (mozjs_anon_sym_async, 476),
     (mozjs_anon_sym_function, 415), (mozjs_anon_sym_EQ_GT, 599),
     (mozjs_sym_optional_chain, 311), (mozjs_anon_sym_new, 478),
     (mozjs_anon_sym_PLUS_EQ, 344), (mozjs_anon_sym_DASH_EQ, 344),
     (mozjs_anon_sym_STAR_EQ, 344), (mozjs_anon_sym_SLASH_EQ, 344),
     (mozjs_anon_sym_PERCENT_EQ, 344), (mozjs_anon_sym_CARET_EQ, 344),
     (mozjs_anon_sym_AMP_EQ, 344), (mozjs_anon_sym_PIPE_EQ, 344),
     (mozjs_anon_sym_GT_GT_EQ, 344), (mozjs_anon_sym_GT_GT_GT_EQ, 344),
     (mozjs_anon_sym_LT_LT_EQ, 344), (mozjs_anon_sym_STAR_STAR_EQ, 344),
     (mozjs_anon_sym_AMP_AMP_EQ, 344), (mozjs_anon_sym_PIPE_PIPE_EQ, 344),
     (mozjs_anon_sym_QMARK_QMARK_EQ, 344), (mozjs_anon_sym_AMP_AMP, 307),
     (mozjs_anon_sym_PIPE_PIPE, 307), (mozjs_anon_sym_GT_GT, 307),
     (mozjs_anon_sym_GT_GT_GT, 307), (mozjs_anon_sym_LT_LT, 307),
     (mozjs_anon_sym_AMP, 307), (mozjs_anon_sym_CARET, 307),
     (mozjs_anon_sym_PIPE, 307), (mozjs_anon_sym_PLUS, 480),
     (mozjs_anon_sym_DASH, 480), (mozjs_anon_sym_SLASH, 424),
     (mozjs_anon_sym_PERCENT, 307), (mozjs_anon_sym_STAR_STAR, 307),
     (mozjs_anon_sym_LT_EQ, 311), (mozjs_anon_sym_EQ_EQ, 307),
     (mozjs_anon_sym_EQ_EQ_EQ, 311), (mozjs_anon_sym_BANG_EQ, 307),
     (mozjs_anon_sym_BANG_EQ_EQ, 311), (mozjs_anon_sym_GT_EQ, 311),
     (mozjs_anon_sym_QMARK_QMARK, 307), (mozjs_anon_sym_instanceof, 307),
     (mozjs_anon_sym_BANG, 483), (mozjs_anon_sym_TILDE, 485),
     (mozjs_anon_sym_typeof, 483), (mozjs_anon_sym_void, 483),
     (mozjs_anon_sym_delete, 483), (mozjs_anon_sym_PLUS_PLUS, 487),
     (mozjs_anon_sym_DASH_DASH, 487), (mozjs_sym_comment, 5),
     (mozjs_anon_sym_BQUOTE, 434), (mozjs_sym_number, 437),
     (mozjs_sym_private_property_identifier, 490), (mozjs_sym_this, 441),
     (mozjs_sym_super, 441), (mozjs_sym_true, 441),
     (mozjs_sym_false, 441), (mozjs_sym_null, 441),
     (mozjs_sym_undefined, 492), (mozjs_anon_sym_AT, 93),
     (mozjs_anon_sym_static, 463), (mozjs_anon_sym_get, 463),
     (mozjs_anon_sym_set, 463), (mozjs_sym__ternary_qmark, 311),
     (mozjs_sym_html_comment, 5)]"

definition mozjs_parse_row_78 :: "(TSSymbol \<times> nat) list" where
  "mozjs_parse_row_78 =
    [(mozjs_sym_import, 1340), (mozjs_sym_parenthesized_expression, 578),
     (mozjs_sym_expression, 586), (mozjs_sym_primary_expression, 584),
     (mozjs_sym_yield_expression, 638), (mozjs_sym_object, 645),
     (mozjs_sym_object_pattern, 1808), (mozjs_sym_array, 645),
     (mozjs_sym_array_pattern, 1808), (mozjs_sym_jsx_element, 638),
     (mozjs_sym_jsx_opening_element, 1152), (mozjs_sym_jsx_self_closing_element, 638),
     (mozjs_sym_class, 645), (mozjs_sym_function_expression, 645),
     (mozjs_sym_generator_function, 645), (mozjs_sym_arrow_function, 645),
     (mozjs_sym_call_expression, 645), (mozjs_sym_new_expression, 587),
     (mozjs_sym_await_expression, 638), (mozjs_sym_member_expression, 578),
     (mozjs_sym_subscript_expression, 578), (mozjs_sym_assignment_expression, 638),
     (mozjs_sym__augmented_assignment_lhs, 1147), (mozjs_sym_augmented_assignment_expression,
       638),
     (mozjs_sym__destructuring_pattern, 1808), (mozjs_sym_ternary_expression, 638),
     (mozjs_sym_binary_expression, 638), (mozjs_sym_unary_expression, 638),
     (mozjs_sym_update_expression, 638), (mozjs_sym_string, 645),
     (mozjs_sym_template_string, 645), (mozjs_sym_regex, 645),
     (mozjs_sym_meta_property, 645), (mozjs_sym_decorator, 1112),
     (mozjs_sym_formal_parameters, 1838), (mozjs_aux_sym_export_statement_repeat1, 1395),
     (mozjs_sym_identifier, 620), (mozjs_anon_sym_export, 622),
     (mozjs_anon_sym_STAR, 307), (mozjs_anon_sym_LBRACE, 624),
     (mozjs_anon_sym_import, 390), (mozjs_anon_sym_let, 622),
     (mozjs_anon_sym_await, 627), (mozjs_anon_sym_LPAREN, 394),
     (mozjs_anon_sym_in, 307), (mozjs_anon_sym_yield, 629),
     (mozjs_anon_sym_EQ, 631), (mozjs_anon_sym_LBRACK, 473),
     (mozjs_anon_sym_LT, 404), (mozjs_anon_sym_GT, 307),
     (mozjs_anon_sym_DOT, 307), (mozjs_anon_sym_DQUOTE, 407),
     (mozjs_anon_sym_SQUOTE, 409), (mozjs_anon_sym_class, 411),
     (mozjs_anon_sym_async, 633), (mozjs_anon_sym_function, 415),
     (mozjs_anon_sym_EQ_GT, 635), (mozjs_sym_optional_chain, 311),
     (mozjs_anon_sym_new, 637), (mozjs_anon_sym_PLUS_EQ, 344),
     (mozjs_anon_sym_DASH_EQ, 344), (mozjs_anon_sym_STAR_EQ, 344),
     (mozjs_anon_sym_SLASH_EQ, 344), (mozjs_anon_sym_PERCENT_EQ, 344),
     (mozjs_anon_sym_CARET_EQ, 344), (mozjs_anon_sym_AMP_EQ, 344),
     (mozjs_anon_sym_PIPE_EQ, 344), (mozjs_anon_sym_GT_GT_EQ, 344),
     (mozjs_anon_sym_GT_GT_GT_EQ, 344), (mozjs_anon_sym_LT_LT_EQ, 344),
     (mozjs_anon_sym_STAR_STAR_EQ, 344), (mozjs_anon_sym_AMP_AMP_EQ, 344),
     (mozjs_anon_sym_PIPE_PIPE_EQ, 344), (mozjs_anon_sym_QMARK_QMARK_EQ, 344),
     (mozjs_anon_sym_AMP_AMP, 307), (mozjs_anon_sym_PIPE_PIPE, 307),
     (mozjs_anon_sym_GT_GT, 307), (mozjs_anon_sym_GT_GT_GT, 307),
     (mozjs_anon_sym_LT_LT, 307), (mozjs_anon_sym_AMP, 307),
     (mozjs_anon_sym_CARET, 307), (mozjs_anon_sym_PIPE, 307),
     (mozjs_anon_sym_PLUS, 639), (mozjs_anon_sym_DASH, 639),
     (mozjs_anon_sym_SLASH, 424), (mozjs_anon_sym_PERCENT, 307),
     (mozjs_anon_sym_STAR_STAR, 307), (mozjs_anon_sym_LT_EQ, 311),
     (mozjs_anon_sym_EQ_EQ, 307), (mozjs_anon_sym_EQ_EQ_EQ, 311),
     (mozjs_anon_sym_BANG_EQ, 307), (mozjs_anon_sym_BANG_EQ_EQ, 311),
     (mozjs_anon_sym_GT_EQ, 311), (mozjs_anon_sym_QMARK_QMARK, 307),
     (mozjs_anon_sym_instanceof, 307), (mozjs_anon_sym_BANG, 642),
     (mozjs_anon_sym_TILDE, 644), (mozjs_anon_sym_typeof, 642),
     (mozjs_anon_sym_void, 642), (mozjs_anon_sym_delete, 642),
     (mozjs_anon_sym_PLUS_PLUS, 646), (mozjs_anon_sym_DASH_DASH, 646),
     (mozjs_sym_comment, 5), (mozjs_anon_sym_BQUOTE, 434),
     (mozjs_sym_number, 437), (mozjs_sym_private_property_identifier, 649),
     (mozjs_sym_this, 441), (mozjs_sym_super, 441),
     (mozjs_sym_true, 441), (mozjs_sym_false, 441),
     (mozjs_sym_null, 441), (mozjs_sym_undefined, 651),
     (mozjs_anon_sym_AT, 93), (mozjs_anon_sym_static, 622),
     (mozjs_anon_sym_get, 622), (mozjs_anon_sym_set, 622),
     (mozjs_sym__ternary_qmark, 311), (mozjs_sym_html_comment, 5)]"

definition mozjs_parse_row_79 :: "(TSSymbol \<times> nat) list" where
  "mozjs_parse_row_79 =
    [(mozjs_sym_import, 1340), (mozjs_sym_parenthesized_expression, 499),
     (mozjs_sym_expression, 586), (mozjs_sym_primary_expression, 584),
     (mozjs_sym_yield_expression, 638), (mozjs_sym_object, 645),
     (mozjs_sym_object_pattern, 1766), (mozjs_sym_array, 645),
     (mozjs_sym_array_pattern, 1766), (mozjs_sym_jsx_element, 638),
     (mozjs_sym_jsx_opening_element, 1152), (mozjs_sym_jsx_self_closing_element, 638),
     (mozjs_sym_class, 645), (mozjs_sym_function_expression, 645),
     (mozjs_sym_generator_function, 645), (mozjs_sym_arrow_function, 645),
     (mozjs_sym_call_expression, 645), (mozjs_sym_new_expression, 587),
     (mozjs_sym_await_expression, 638), (mozjs_sym_member_expression, 499),
     (mozjs_sym_subscript_expression, 499), (mozjs_sym_assignment_expression, 638),
     (mozjs_sym__augmented_assignment_lhs, 1144), (mozjs_sym_augmented_assignment_expression,
       638),
     (mozjs_sym__destructuring_pattern, 1766), (mozjs_sym_ternary_expression, 638),
     (mozjs_sym_binary_expression, 638), (mozjs_sym_unary_expression, 638),
     (mozjs_sym_update_expression, 638), (mozjs_sym_string, 645),
     (mozjs_sym_template_string, 645), (mozjs_sym_regex, 645),
     (mozjs_sym_meta_property, 645), (mozjs_sym_decorator, 1112),
     (mozjs_sym_formal_parameters, 1828), (mozjs_aux_sym_export_statement_repeat1, 1395),
     (mozjs_sym_identifier, 461), (mozjs_anon_sym_export, 463),
     (mozjs_anon_sym_STAR, 307), (mozjs_anon_sym_LBRACE, 624),
     (mozjs_anon_sym_import, 390), (mozjs_anon_sym_let, 463),
     (mozjs_anon_sym_await, 467), (mozjs_anon_sym_LPAREN, 394),
     (mozjs_anon_sym_in, 307), (mozjs_anon_sym_yield, 469),
     (mozjs_anon_sym_EQ, 471), (mozjs_anon_sym_LBRACK, 473),
     (mozjs_anon_sym_LT, 404), (mozjs_anon_sym_GT, 307),
     (mozjs_anon_sym_DOT, 307), (mozjs_anon_sym_DQUOTE, 407),
     (mozjs_anon_sym_SQUOTE, 409), (mozjs_anon_sym_class, 411),
     (mozjs_anon_sym_async, 476), (mozjs_anon_sym_function, 415),
     (mozjs_anon_sym_EQ_GT, 635), (mozjs_sym_optional_chain, 311),
     (mozjs_anon_sym_new, 478), (mozjs_anon_sym_PLUS_EQ, 344),
     (mozjs_anon_sym_DASH_EQ, 344), (mozjs_anon_sym_STAR_EQ, 344),
     (mozjs_anon_sym_SLASH_EQ, 344), (mozjs_anon_sym_PERCENT_EQ, 344),
     (mozjs_anon_sym_CARET_EQ, 344), (mozjs_anon_sym_AMP_EQ, 344),
     (mozjs_anon_sym_PIPE_EQ, 344), (mozjs_anon_sym_GT_GT_EQ, 344),
     (mozjs_anon_sym_GT_GT_GT_EQ, 344), (mozjs_anon_sym_LT_LT_EQ, 344),
     (mozjs_anon_sym_STAR_STAR_EQ, 344), (mozjs_anon_sym_AMP_AMP_EQ, 344),
     (mozjs_anon_sym_PIPE_PIPE_EQ, 344), (mozjs_anon_sym_QMARK_QMARK_EQ, 344),
     (mozjs_anon_sym_AMP_AMP, 307), (mozjs_anon_sym_PIPE_PIPE, 307),
     (mozjs_anon_sym_GT_GT, 307), (mozjs_anon_sym_GT_GT_GT, 307),
     (mozjs_anon_sym_LT_LT, 307), (mozjs_anon_sym_AMP, 307),
     (mozjs_anon_sym_CARET, 307), (mozjs_anon_sym_PIPE, 307),
     (mozjs_anon_sym_PLUS, 480), (mozjs_anon_sym_DASH, 480),
     (mozjs_anon_sym_SLASH, 424), (mozjs_anon_sym_PERCENT, 307),
     (mozjs_anon_sym_STAR_STAR, 307), (mozjs_anon_sym_LT_EQ, 311),
     (mozjs_anon_sym_EQ_EQ, 307), (mozjs_anon_sym_EQ_EQ_EQ, 311),
     (mozjs_anon_sym_BANG_EQ, 307), (mozjs_anon_sym_BANG_EQ_EQ, 311),
     (mozjs_anon_sym_GT_EQ, 311), (mozjs_anon_sym_QMARK_QMARK, 307),
     (mozjs_anon_sym_instanceof, 307), (mozjs_anon_sym_BANG, 483),
     (mozjs_anon_sym_TILDE, 485), (mozjs_anon_sym_typeof, 483),
     (mozjs_anon_sym_void, 483), (mozjs_anon_sym_delete, 483),
     (mozjs_anon_sym_PLUS_PLUS, 487), (mozjs_anon_sym_DASH_DASH, 487),
     (mozjs_sym_comment, 5), (mozjs_anon_sym_BQUOTE, 434),
     (mozjs_sym_number, 437), (mozjs_sym_private_property_identifier, 490),
     (mozjs_sym_this, 441), (mozjs_sym_super, 441),
     (mozjs_sym_true, 441), (mozjs_sym_false, 441),
     (mozjs_sym_null, 441), (mozjs_sym_undefined, 492),
     (mozjs_anon_sym_AT, 93), (mozjs_anon_sym_static, 463),
     (mozjs_anon_sym_get, 463), (mozjs_anon_sym_set, 463),
     (mozjs_sym__ternary_qmark, 311), (mozjs_sym_html_comment, 5)]"

definition mozjs_parse_row_80 :: "(TSSymbol \<times> nat) list" where
  "mozjs_parse_row_80 =
    [(mozjs_sym_import, 1340), (mozjs_sym_parenthesized_expression, 525),
     (mozjs_sym_expression, 657), (mozjs_sym_primary_expression, 584),
     (mozjs_sym_yield_expression, 638), (mozjs_sym_object, 645),
     (mozjs_sym_object_pattern, 1827), (mozjs_sym_array, 645),
     (mozjs_sym_array_pattern, 1827), (mozjs_sym_jsx_element, 638),
     (mozjs_sym_jsx_opening_element, 1152), (mozjs_sym_jsx_self_closing_element, 638),
     (mozjs_sym_class, 645), (mozjs_sym_function_expression, 645),
     (mozjs_sym_generator_function, 645), (mozjs_sym_arrow_function, 645),
     (mozjs_sym_call_expression, 645), (mozjs_sym_new_expression, 587),
     (mozjs_sym_await_expression, 638), (mozjs_sym_member_expression, 525),
     (mozjs_sym_subscript_expression, 525), (mozjs_sym_assignment_expression, 638),
     (mozjs_sym__augmented_assignment_lhs, 1145), (mozjs_sym_augmented_assignment_expression,
       638),
     (mozjs_sym__destructuring_pattern, 1827), (mozjs_sym_ternary_expression, 638),
     (mozjs_sym_binary_expression, 638), (mozjs_sym_unary_expression, 638),
     (mozjs_sym_update_expression, 638), (mozjs_sym_string, 645),
     (mozjs_sym_template_string, 645), (mozjs_sym_regex, 645),
     (mozjs_sym_meta_property, 645), (mozjs_sym_decorator, 1112),
     (mozjs_sym_formal_parameters, 1777), (mozjs_aux_sym_export_statement_repeat1, 1395),
     (mozjs_sym_identifier, 384), (mozjs_anon_sym_export, 386),
     (mozjs_anon_sym_STAR, 653), (mozjs_anon_sym_LBRACE, 388),
     (mozjs_anon_sym_COMMA, 655), (mozjs_anon_sym_RBRACE, 655),
     (mozjs_anon_sym_import, 390), (mozjs_anon_sym_let, 386),
     (mozjs_anon_sym_await, 392), (mozjs_anon_sym_LPAREN, 657),
     (mozjs_anon_sym_SEMI, 655), (mozjs_anon_sym_RPAREN, 655),
     (mozjs_anon_sym_in, 659), (mozjs_anon_sym_COLON, 655),
     (mozjs_anon_sym_yield, 397), (mozjs_anon_sym_LBRACK, 661),
     (mozjs_anon_sym_RBRACK, 655), (mozjs_anon_sym_LT, 663),
     (mozjs_anon_sym_GT, 659), (mozjs_anon_sym_DOT, 659),
     (mozjs_anon_sym_DQUOTE, 407), (mozjs_anon_sym_SQUOTE, 409),
     (mozjs_anon_sym_class, 411), (mozjs_anon_sym_async, 413),
     (mozjs_anon_sym_function, 415), (mozjs_sym_optional_chain, 655),
     (mozjs_anon_sym_new, 419), (mozjs_anon_sym_AMP_AMP, 655),
     (mozjs_anon_sym_PIPE_PIPE, 655), (mozjs_anon_sym_GT_GT, 659),
     (mozjs_anon_sym_GT_GT_GT, 655), (mozjs_anon_sym_LT_LT, 655),
     (mozjs_anon_sym_AMP, 659), (mozjs_anon_sym_CARET, 655),
     (mozjs_anon_sym_PIPE, 659), (mozjs_anon_sym_PLUS, 427),
     (mozjs_anon_sym_DASH, 427), (mozjs_anon_sym_SLASH, 665),
     (mozjs_anon_sym_PERCENT, 655), (mozjs_anon_sym_STAR_STAR, 655),
     (mozjs_anon_sym_LT_EQ, 655), (mozjs_anon_sym_EQ_EQ, 659),
     (mozjs_anon_sym_EQ_EQ_EQ, 655), (mozjs_anon_sym_BANG_EQ, 659),
     (mozjs_anon_sym_BANG_EQ_EQ, 655), (mozjs_anon_sym_GT_EQ, 655),
     (mozjs_anon_sym_QMARK_QMARK, 655), (mozjs_anon_sym_instanceof, 659),
     (mozjs_anon_sym_BANG, 427), (mozjs_anon_sym_TILDE, 429),
     (mozjs_anon_sym_typeof, 427), (mozjs_anon_sym_void, 427),
     (mozjs_anon_sym_delete, 427), (mozjs_anon_sym_PLUS_PLUS, 667),
     (mozjs_anon_sym_DASH_DASH, 667), (mozjs_sym_comment, 5),
     (mozjs_anon_sym_BQUOTE, 669), (mozjs_sym_number, 437),
     (mozjs_sym_private_property_identifier, 439), (mozjs_sym_this, 441),
     (mozjs_sym_super, 441), (mozjs_sym_true, 441),
     (mozjs_sym_false, 441), (mozjs_sym_null, 441),
     (mozjs_sym_undefined, 443), (mozjs_anon_sym_AT, 93),
     (mozjs_anon_sym_static, 386), (mozjs_anon_sym_get, 386),
     (mozjs_anon_sym_set, 386), (mozjs_sym__ternary_qmark, 655),
     (mozjs_sym_html_comment, 5)]"

definition mozjs_parse_row_81 :: "(TSSymbol \<times> nat) list" where
  "mozjs_parse_row_81 =
    [(mozjs_sym_import, 1333), (mozjs_sym_parenthesized_expression, 556),
     (mozjs_sym_expression, 750), (mozjs_sym_primary_expression, 693),
     (mozjs_sym_yield_expression, 743), (mozjs_sym_object, 793),
     (mozjs_sym_object_pattern, 1845), (mozjs_sym_array, 793),
     (mozjs_sym_array_pattern, 1845), (mozjs_sym_jsx_element, 743),
     (mozjs_sym_jsx_opening_element, 1158), (mozjs_sym_jsx_self_closing_element, 743),
     (mozjs_sym_class, 793), (mozjs_sym_function_expression, 793),
     (mozjs_sym_generator_function, 793), (mozjs_sym_arrow_function, 793),
     (mozjs_sym_call_expression, 793), (mozjs_sym_new_expression, 692),
     (mozjs_sym_await_expression, 743), (mozjs_sym_member_expression, 556),
     (mozjs_sym_subscript_expression, 556), (mozjs_sym_assignment_expression, 743),
     (mozjs_sym__augmented_assignment_lhs, 1146), (mozjs_sym_augmented_assignment_expression,
       743),
     (mozjs_sym__destructuring_pattern, 1845), (mozjs_sym_ternary_expression, 743),
     (mozjs_sym_binary_expression, 743), (mozjs_sym_unary_expression, 743),
     (mozjs_sym_update_expression, 743), (mozjs_sym_string, 793),
     (mozjs_sym_template_string, 793), (mozjs_sym_regex, 793),
     (mozjs_sym_meta_property, 793), (mozjs_sym_decorator, 1112),
     (mozjs_sym_formal_parameters, 1847), (mozjs_aux_sym_export_statement_repeat1, 1331),
     (mozjs_sym_identifier, 303), (mozjs_anon_sym_export, 305),
     (mozjs_anon_sym_STAR, 671), (mozjs_anon_sym_LBRACE, 309),
     (mozjs_anon_sym_COMMA, 655), (mozjs_anon_sym_RBRACE, 655),
     (mozjs_anon_sym_import, 315), (mozjs_anon_sym_let, 305),
     (mozjs_anon_sym_await, 319), (mozjs_anon_sym_LPAREN, 37),
     (mozjs_anon_sym_SEMI, 655), (mozjs_anon_sym_in, 659),
     (mozjs_anon_sym_yield, 57), (mozjs_anon_sym_LBRACK, 59),
     (mozjs_anon_sym_LT, 673), (mozjs_anon_sym_GT, 659),
     (mozjs_anon_sym_DOT, 659), (mozjs_anon_sym_DQUOTE, 63),
     (mozjs_anon_sym_SQUOTE, 65), (mozjs_anon_sym_class, 336),
     (mozjs_anon_sym_async, 338), (mozjs_anon_sym_function, 340),
     (mozjs_sym_optional_chain, 655), (mozjs_anon_sym_new, 73),
     (mozjs_anon_sym_AMP_AMP, 655), (mozjs_anon_sym_PIPE_PIPE, 655),
     (mozjs_anon_sym_GT_GT, 659), (mozjs_anon_sym_GT_GT_GT, 655),
     (mozjs_anon_sym_LT_LT, 655), (mozjs_anon_sym_AMP, 659),
     (mozjs_anon_sym_CARET, 655), (mozjs_anon_sym_PIPE, 659),
     (mozjs_anon_sym_PLUS, 75), (mozjs_anon_sym_DASH, 75),
     (mozjs_anon_sym_SLASH, 77), (mozjs_anon_sym_PERCENT, 655),
     (mozjs_anon_sym_STAR_STAR, 655), (mozjs_anon_sym_LT_EQ, 655),
     (mozjs_anon_sym_EQ_EQ, 659), (mozjs_anon_sym_EQ_EQ_EQ, 655),
     (mozjs_anon_sym_BANG_EQ, 659), (mozjs_anon_sym_BANG_EQ_EQ, 655),
     (mozjs_anon_sym_GT_EQ, 655), (mozjs_anon_sym_QMARK_QMARK, 655),
     (mozjs_anon_sym_instanceof, 659), (mozjs_anon_sym_BANG, 75),
     (mozjs_anon_sym_TILDE, 79), (mozjs_anon_sym_typeof, 75),
     (mozjs_anon_sym_void, 75), (mozjs_anon_sym_delete, 75),
     (mozjs_anon_sym_PLUS_PLUS, 81), (mozjs_anon_sym_DASH_DASH, 81),
     (mozjs_sym_comment, 5), (mozjs_anon_sym_BQUOTE, 83),
     (mozjs_sym_number, 85), (mozjs_sym_private_property_identifier, 358),
     (mozjs_sym_this, 89), (mozjs_sym_super, 89),
     (mozjs_sym_true, 89), (mozjs_sym_false, 89),
     (mozjs_sym_null, 89), (mozjs_sym_undefined, 91),
     (mozjs_anon_sym_AT, 93), (mozjs_anon_sym_static, 305),
     (mozjs_anon_sym_get, 305), (mozjs_anon_sym_set, 305),
     (mozjs_sym__automatic_semicolon, 655), (mozjs_sym__ternary_qmark, 655),
     (mozjs_sym_html_comment, 5)]"

definition mozjs_parse_row_82 :: "(TSSymbol \<times> nat) list" where
  "mozjs_parse_row_82 =
    [(mozjs_sym_import, 1333), (mozjs_sym_parenthesized_expression, 559),
     (mozjs_sym_expression, 701), (mozjs_sym_primary_expression, 693),
     (mozjs_sym_yield_expression, 743), (mozjs_sym_object, 793),
     (mozjs_sym_object_pattern, 1811), (mozjs_sym_array, 793),
     (mozjs_sym_array_pattern, 1811), (mozjs_sym_jsx_element, 743),
     (mozjs_sym_jsx_opening_element, 1158), (mozjs_sym_jsx_self_closing_element, 743),
     (mozjs_sym_class, 793), (mozjs_sym_function_expression, 793),
     (mozjs_sym_generator_function, 793), (mozjs_sym_arrow_function, 793),
     (mozjs_sym_call_expression, 793), (mozjs_sym_new_expression, 692),
     (mozjs_sym_await_expression, 743), (mozjs_sym_member_expression, 559),
     (mozjs_sym_subscript_expression, 559), (mozjs_sym_assignment_expression, 743),
     (mozjs_sym__augmented_assignment_lhs, 1143), (mozjs_sym_augmented_assignment_expression,
       743),
     (mozjs_sym__destructuring_pattern, 1811), (mozjs_sym_ternary_expression, 743),
     (mozjs_sym_binary_expression, 743), (mozjs_sym_unary_expression, 743),
     (mozjs_sym_update_expression, 743), (mozjs_sym_string, 793),
     (mozjs_sym_template_string, 793), (mozjs_sym_regex, 793),
     (mozjs_sym_meta_property, 793), (mozjs_sym_decorator, 1112),
     (mozjs_sym_formal_parameters, 1812), (mozjs_aux_sym_export_statement_repeat1, 1331),
     (mozjs_sym_identifier, 551), (mozjs_anon_sym_export, 553),
     (mozjs_anon_sym_STAR, 675), (mozjs_anon_sym_LBRACE, 309),
     (mozjs_anon_sym_COMMA, 655), (mozjs_anon_sym_import, 315),
     (mozjs_anon_sym_let, 553), (mozjs_anon_sym_await, 555),
     (mozjs_anon_sym_of, 659), (mozjs_anon_sym_LPAREN, 37),
     (mozjs_anon_sym_SEMI, 655), (mozjs_anon_sym_in, 659),
     (mozjs_anon_sym_yield, 557), (mozjs_anon_sym_LBRACK, 59),
     (mozjs_anon_sym_LT, 673), (mozjs_anon_sym_GT, 659),
     (mozjs_anon_sym_DOT, 659), (mozjs_anon_sym_DQUOTE, 63),
     (mozjs_anon_sym_SQUOTE, 65), (mozjs_anon_sym_class, 336),
     (mozjs_anon_sym_async, 561), (mozjs_anon_sym_function, 340),
     (mozjs_sym_optional_chain, 655), (mozjs_anon_sym_new, 565),
     (mozjs_anon_sym_AMP_AMP, 655), (mozjs_anon_sym_PIPE_PIPE, 655),
     (mozjs_anon_sym_GT_GT, 659), (mozjs_anon_sym_GT_GT_GT, 655),
     (mozjs_anon_sym_LT_LT, 655), (mozjs_anon_sym_AMP, 659),
     (mozjs_anon_sym_CARET, 655), (mozjs_anon_sym_PIPE, 659),
     (mozjs_anon_sym_PLUS, 573), (mozjs_anon_sym_DASH, 573),
     (mozjs_anon_sym_SLASH, 677), (mozjs_anon_sym_PERCENT, 655),
     (mozjs_anon_sym_STAR_STAR, 655), (mozjs_anon_sym_LT_EQ, 655),
     (mozjs_anon_sym_EQ_EQ, 659), (mozjs_anon_sym_EQ_EQ_EQ, 655),
     (mozjs_anon_sym_BANG_EQ, 659), (mozjs_anon_sym_BANG_EQ_EQ, 655),
     (mozjs_anon_sym_GT_EQ, 655), (mozjs_anon_sym_QMARK_QMARK, 655),
     (mozjs_anon_sym_instanceof, 659), (mozjs_anon_sym_BANG, 573),
     (mozjs_anon_sym_TILDE, 575), (mozjs_anon_sym_typeof, 573),
     (mozjs_anon_sym_void, 573), (mozjs_anon_sym_delete, 573),
     (mozjs_anon_sym_PLUS_PLUS, 679), (mozjs_anon_sym_DASH_DASH, 679),
     (mozjs_sym_comment, 5), (mozjs_anon_sym_BQUOTE, 83),
     (mozjs_sym_number, 85), (mozjs_sym_private_property_identifier, 580),
     (mozjs_sym_this, 89), (mozjs_sym_super, 89),
     (mozjs_sym_true, 89), (mozjs_sym_false, 89),
     (mozjs_sym_null, 89), (mozjs_sym_undefined, 582),
     (mozjs_anon_sym_AT, 93), (mozjs_anon_sym_static, 553),
     (mozjs_anon_sym_get, 553), (mozjs_anon_sym_set, 553),
     (mozjs_sym__automatic_semicolon, 655), (mozjs_sym__ternary_qmark, 655),
     (mozjs_sym_html_comment, 5)]"

definition mozjs_parse_row_83 :: "(TSSymbol \<times> nat) list" where
  "mozjs_parse_row_83 =
    [(mozjs_sym_import, 1340), (mozjs_sym_parenthesized_expression, 579),
     (mozjs_sym_expression, 970), (mozjs_sym_primary_expression, 584),
     (mozjs_sym_yield_expression, 638), (mozjs_sym_object, 645),
     (mozjs_sym_object_pattern, 1866), (mozjs_sym_array, 645),
     (mozjs_sym_array_pattern, 1866), (mozjs_sym_jsx_element, 638),
     (mozjs_sym_jsx_opening_element, 1152), (mozjs_sym_jsx_self_closing_element, 638),
     (mozjs_sym_class, 645), (mozjs_sym_function_expression, 645),
     (mozjs_sym_generator_function, 645), (mozjs_sym_arrow_function, 645),
     (mozjs_sym_call_expression, 645), (mozjs_sym_new_expression, 587),
     (mozjs_sym_await_expression, 638), (mozjs_sym_member_expression, 579),
     (mozjs_sym_subscript_expression, 579), (mozjs_sym_assignment_expression, 638),
     (mozjs_sym__augmented_assignment_lhs, 1148), (mozjs_sym_augmented_assignment_expression,
       638),
     (mozjs_sym__destructuring_pattern, 1866), (mozjs_sym_ternary_expression, 638),
     (mozjs_sym_binary_expression, 638), (mozjs_sym_unary_expression, 638),
     (mozjs_sym_update_expression, 638), (mozjs_sym_string, 645),
     (mozjs_sym_template_string, 645), (mozjs_sym_regex, 645),
     (mozjs_sym_meta_property, 645), (mozjs_sym_decorator, 1112),
     (mozjs_sym_formal_parameters, 1788), (mozjs_aux_sym_export_statement_repeat1, 1395),
     (mozjs_sym_identifier, 587), (mozjs_anon_sym_export, 589),
     (mozjs_anon_sym_STAR, 681), (mozjs_anon_sym_LBRACE, 465),
     (mozjs_anon_sym_import, 390), (mozjs_anon_sym_let, 589),
     (mozjs_anon_sym_await, 591), (mozjs_anon_sym_of, 659),
     (mozjs_anon_sym_LPAREN, 657), (mozjs_anon_sym_in, 659),
     (mozjs_anon_sym_yield, 593), (mozjs_anon_sym_LBRACK, 683),
     (mozjs_anon_sym_LT, 663), (mozjs_anon_sym_GT, 659),
     (mozjs_anon_sym_DOT, 659), (mozjs_anon_sym_DQUOTE, 407),
     (mozjs_anon_sym_SQUOTE, 409), (mozjs_anon_sym_class, 411),
     (mozjs_anon_sym_async, 597), (mozjs_anon_sym_function, 415),
     (mozjs_sym_optional_chain, 655), (mozjs_anon_sym_new, 601),
     (mozjs_anon_sym_AMP_AMP, 655), (mozjs_anon_sym_PIPE_PIPE, 655),
     (mozjs_anon_sym_GT_GT, 659), (mozjs_anon_sym_GT_GT_GT, 655),
     (mozjs_anon_sym_LT_LT, 655), (mozjs_anon_sym_AMP, 659),
     (mozjs_anon_sym_CARET, 655), (mozjs_anon_sym_PIPE, 659),
     (mozjs_anon_sym_PLUS, 609), (mozjs_anon_sym_DASH, 609),
     (mozjs_anon_sym_SLASH, 685), (mozjs_anon_sym_PERCENT, 655),
     (mozjs_anon_sym_STAR_STAR, 655), (mozjs_anon_sym_LT_EQ, 655),
     (mozjs_anon_sym_EQ_EQ, 659), (mozjs_anon_sym_EQ_EQ_EQ, 655),
     (mozjs_anon_sym_BANG_EQ, 659), (mozjs_anon_sym_BANG_EQ_EQ, 655),
     (mozjs_anon_sym_GT_EQ, 655), (mozjs_anon_sym_QMARK_QMARK, 655),
     (mozjs_anon_sym_instanceof, 659), (mozjs_anon_sym_BANG, 609),
     (mozjs_anon_sym_TILDE, 611), (mozjs_anon_sym_typeof, 609),
     (mozjs_anon_sym_void, 609), (mozjs_anon_sym_delete, 609),
     (mozjs_anon_sym_PLUS_PLUS, 687), (mozjs_anon_sym_DASH_DASH, 687),
     (mozjs_sym_comment, 5), (mozjs_anon_sym_BQUOTE, 669),
     (mozjs_sym_number, 437), (mozjs_sym_private_property_identifier, 616),
     (mozjs_sym_this, 441), (mozjs_sym_super, 441),
     (mozjs_sym_true, 441), (mozjs_sym_false, 441),
     (mozjs_sym_null, 441), (mozjs_sym_undefined, 618),
     (mozjs_anon_sym_AT, 93), (mozjs_anon_sym_static, 589),
     (mozjs_anon_sym_get, 589), (mozjs_anon_sym_set, 589),
     (mozjs_sym__ternary_qmark, 655), (mozjs_sym_html_comment, 5)]"

definition mozjs_parse_row_84 :: "(TSSymbol \<times> nat) list" where
  "mozjs_parse_row_84 =
    [(mozjs_sym_import, 1340), (mozjs_sym_parenthesized_expression, 499),
     (mozjs_sym_expression, 968), (mozjs_sym_primary_expression, 584),
     (mozjs_sym_yield_expression, 638), (mozjs_sym_object, 645),
     (mozjs_sym_object_pattern, 1766), (mozjs_sym_array, 645),
     (mozjs_sym_array_pattern, 1766), (mozjs_sym_jsx_element, 638),
     (mozjs_sym_jsx_opening_element, 1152), (mozjs_sym_jsx_self_closing_element, 638),
     (mozjs_sym_class, 645), (mozjs_sym_function_expression, 645),
     (mozjs_sym_generator_function, 645), (mozjs_sym_arrow_function, 645),
     (mozjs_sym_call_expression, 645), (mozjs_sym_new_expression, 587),
     (mozjs_sym_await_expression, 638), (mozjs_sym_member_expression, 499),
     (mozjs_sym_subscript_expression, 499), (mozjs_sym_assignment_expression, 638),
     (mozjs_sym__augmented_assignment_lhs, 1144), (mozjs_sym_augmented_assignment_expression,
       638),
     (mozjs_sym__destructuring_pattern, 1766), (mozjs_sym_ternary_expression, 638),
     (mozjs_sym_binary_expression, 638), (mozjs_sym_unary_expression, 638),
     (mozjs_sym_update_expression, 638), (mozjs_sym_string, 645),
     (mozjs_sym_template_string, 645), (mozjs_sym_regex, 645),
     (mozjs_sym_meta_property, 645), (mozjs_sym_decorator, 1112),
     (mozjs_sym_formal_parameters, 1828), (mozjs_aux_sym_export_statement_repeat1, 1395),
     (mozjs_sym_identifier, 461), (mozjs_anon_sym_export, 463),
     (mozjs_anon_sym_STAR, 689), (mozjs_anon_sym_LBRACE, 465),
     (mozjs_anon_sym_import, 390), (mozjs_anon_sym_let, 463),
     (mozjs_anon_sym_await, 467), (mozjs_anon_sym_LPAREN, 657),
     (mozjs_anon_sym_in, 659), (mozjs_anon_sym_COLON, 655),
     (mozjs_anon_sym_yield, 469), (mozjs_anon_sym_LBRACK, 683),
     (mozjs_anon_sym_LT, 663), (mozjs_anon_sym_GT, 659),
     (mozjs_anon_sym_DOT, 659), (mozjs_anon_sym_DQUOTE, 407),
     (mozjs_anon_sym_SQUOTE, 409), (mozjs_anon_sym_class, 411),
     (mozjs_anon_sym_async, 476), (mozjs_anon_sym_function, 415),
     (mozjs_sym_optional_chain, 655), (mozjs_anon_sym_new, 478),
     (mozjs_anon_sym_AMP_AMP, 655), (mozjs_anon_sym_PIPE_PIPE, 655),
     (mozjs_anon_sym_GT_GT, 659), (mozjs_anon_sym_GT_GT_GT, 655),
     (mozjs_anon_sym_LT_LT, 655), (mozjs_anon_sym_AMP, 659),
     (mozjs_anon_sym_CARET, 655), (mozjs_anon_sym_PIPE, 659),
     (mozjs_anon_sym_PLUS, 483), (mozjs_anon_sym_DASH, 483),
     (mozjs_anon_sym_SLASH, 665), (mozjs_anon_sym_PERCENT, 655),
     (mozjs_anon_sym_STAR_STAR, 655), (mozjs_anon_sym_LT_EQ, 655),
     (mozjs_anon_sym_EQ_EQ, 659), (mozjs_anon_sym_EQ_EQ_EQ, 655),
     (mozjs_anon_sym_BANG_EQ, 659), (mozjs_anon_sym_BANG_EQ_EQ, 655),
     (mozjs_anon_sym_GT_EQ, 655), (mozjs_anon_sym_QMARK_QMARK, 655),
     (mozjs_anon_sym_instanceof, 659), (mozjs_anon_sym_BANG, 483),
     (mozjs_anon_sym_TILDE, 485), (mozjs_anon_sym_typeof, 483),
     (mozjs_anon_sym_void, 483), (mozjs_anon_sym_delete, 483),
     (mozjs_anon_sym_PLUS_PLUS, 691), (mozjs_anon_sym_DASH_DASH, 691),
     (mozjs_sym_comment, 5), (mozjs_anon_sym_BQUOTE, 669),
     (mozjs_sym_number, 437), (mozjs_sym_private_property_identifier, 490),
     (mozjs_sym_this, 441), (mozjs_sym_super, 441),
     (mozjs_sym_true, 441), (mozjs_sym_false, 441),
     (mozjs_sym_null, 441), (mozjs_sym_undefined, 492),
     (mozjs_anon_sym_AT, 93), (mozjs_anon_sym_static, 463),
     (mozjs_anon_sym_get, 463), (mozjs_anon_sym_set, 463),
     (mozjs_sym__ternary_qmark, 655), (mozjs_sym_html_comment, 5)]"

definition mozjs_parse_row_85 :: "(TSSymbol \<times> nat) list" where
  "mozjs_parse_row_85 =
    [(mozjs_sym_import, 1340), (mozjs_sym_parenthesized_expression, 578),
     (mozjs_sym_expression, 914), (mozjs_sym_primary_expression, 584),
     (mozjs_sym_yield_expression, 638), (mozjs_sym_object, 645),
     (mozjs_sym_object_pattern, 1808), (mozjs_sym_array, 645),
     (mozjs_sym_array_pattern, 1808), (mozjs_sym_jsx_element, 638),
     (mozjs_sym_jsx_opening_element, 1152), (mozjs_sym_jsx_self_closing_element, 638),
     (mozjs_sym_class, 645), (mozjs_sym_function_expression, 645),
     (mozjs_sym_generator_function, 645), (mozjs_sym_arrow_function, 645),
     (mozjs_sym_call_expression, 645), (mozjs_sym_new_expression, 587),
     (mozjs_sym_await_expression, 638), (mozjs_sym_member_expression, 578),
     (mozjs_sym_subscript_expression, 578), (mozjs_sym_assignment_expression, 638),
     (mozjs_sym__augmented_assignment_lhs, 1147), (mozjs_sym_augmented_assignment_expression,
       638),
     (mozjs_sym__destructuring_pattern, 1808), (mozjs_sym_ternary_expression, 638),
     (mozjs_sym_binary_expression, 638), (mozjs_sym_unary_expression, 638),
     (mozjs_sym_update_expression, 638), (mozjs_sym_string, 645),
     (mozjs_sym_template_string, 645), (mozjs_sym_regex, 645),
     (mozjs_sym_meta_property, 645), (mozjs_sym_decorator, 1112),
     (mozjs_sym_formal_parameters, 1838), (mozjs_aux_sym_export_statement_repeat1, 1395),
     (mozjs_sym_identifier, 620), (mozjs_anon_sym_export, 622),
     (mozjs_anon_sym_STAR, 693), (mozjs_anon_sym_LBRACE, 465),
     (mozjs_anon_sym_import, 390), (mozjs_anon_sym_let, 622),
     (mozjs_anon_sym_await, 627), (mozjs_anon_sym_LPAREN, 657),
     (mozjs_anon_sym_in, 659), (mozjs_anon_sym_yield, 629),
     (mozjs_anon_sym_LBRACK, 683), (mozjs_anon_sym_LT, 663),
     (mozjs_anon_sym_GT, 659), (mozjs_anon_sym_DOT, 659),
     (mozjs_anon_sym_DQUOTE, 407), (mozjs_anon_sym_SQUOTE, 409),
     (mozjs_anon_sym_class, 411), (mozjs_anon_sym_async, 633),
     (mozjs_anon_sym_function, 415), (mozjs_sym_optional_chain, 655),
     (mozjs_anon_sym_new, 637), (mozjs_anon_sym_AMP_AMP, 655),
     (mozjs_anon_sym_PIPE_PIPE, 655), (mozjs_anon_sym_GT_GT, 659),
     (mozjs_anon_sym_GT_GT_GT, 655), (mozjs_anon_sym_LT_LT, 655),
     (mozjs_anon_sym_AMP, 659), (mozjs_anon_sym_CARET, 655),
     (mozjs_anon_sym_PIPE, 659), (mozjs_anon_sym_PLUS, 642),
     (mozjs_anon_sym_DASH, 642), (mozjs_anon_sym_SLASH, 665),
     (mozjs_anon_sym_PERCENT, 655), (mozjs_anon_sym_STAR_STAR, 655),
     (mozjs_anon_sym_LT_EQ, 655), (mozjs_anon_sym_EQ_EQ, 659),
     (mozjs_anon_sym_EQ_EQ_EQ, 655), (mozjs_anon_sym_BANG_EQ, 659),
     (mozjs_anon_sym_BANG_EQ_EQ, 655), (mozjs_anon_sym_GT_EQ, 655),
     (mozjs_anon_sym_QMARK_QMARK, 655), (mozjs_anon_sym_instanceof, 659),
     (mozjs_anon_sym_BANG, 642), (mozjs_anon_sym_TILDE, 644),
     (mozjs_anon_sym_typeof, 642), (mozjs_anon_sym_void, 642),
     (mozjs_anon_sym_delete, 642), (mozjs_anon_sym_PLUS_PLUS, 695),
     (mozjs_anon_sym_DASH_DASH, 695), (mozjs_sym_comment, 5),
     (mozjs_anon_sym_BQUOTE, 669), (mozjs_sym_number, 437),
     (mozjs_sym_private_property_identifier, 649), (mozjs_sym_this, 441),
     (mozjs_sym_super, 441), (mozjs_sym_true, 441),
     (mozjs_sym_false, 441), (mozjs_sym_null, 441),
     (mozjs_sym_undefined, 651), (mozjs_anon_sym_AT, 93),
     (mozjs_anon_sym_static, 622), (mozjs_anon_sym_get, 622),
     (mozjs_anon_sym_set, 622), (mozjs_sym__ternary_qmark, 655),
     (mozjs_sym_html_comment, 5)]"

definition mozjs_parse_row_86 :: "(TSSymbol \<times> nat) list" where
  "mozjs_parse_row_86 =
    [(ts_builtin_sym_end, 697), (mozjs_sym_identifier, 699),
     (mozjs_anon_sym_export, 699), (mozjs_anon_sym_STAR, 699),
     (mozjs_anon_sym_default, 699), (mozjs_anon_sym_LBRACE, 697),
     (mozjs_anon_sym_COMMA, 697), (mozjs_anon_sym_RBRACE, 697),
     (mozjs_anon_sym_import, 699), (mozjs_anon_sym_with, 699),
     (mozjs_anon_sym_var, 699), (mozjs_anon_sym_let, 699),
     (mozjs_anon_sym_const, 699), (mozjs_anon_sym_using, 699),
     (mozjs_anon_sym_await, 699), (mozjs_anon_sym_of, 699),
     (mozjs_anon_sym_else, 699), (mozjs_anon_sym_if, 699),
     (mozjs_anon_sym_switch, 699), (mozjs_anon_sym_for, 699),
     (mozjs_anon_sym_LPAREN, 697), (mozjs_anon_sym_SEMI, 697),
     (mozjs_anon_sym_in, 699), (mozjs_anon_sym_while, 699),
     (mozjs_anon_sym_do, 699), (mozjs_anon_sym_try, 699),
     (mozjs_anon_sym_break, 699), (mozjs_anon_sym_continue, 699),
     (mozjs_anon_sym_debugger, 699), (mozjs_anon_sym_return, 699),
     (mozjs_anon_sym_throw, 699), (mozjs_anon_sym_case, 699),
     (mozjs_anon_sym_yield, 699), (mozjs_anon_sym_LBRACK, 697),
     (mozjs_anon_sym_LT, 699), (mozjs_anon_sym_GT, 699),
     (mozjs_anon_sym_DOT, 699), (mozjs_anon_sym_DQUOTE, 697),
     (mozjs_anon_sym_SQUOTE, 697), (mozjs_anon_sym_class, 699),
     (mozjs_anon_sym_async, 699), (mozjs_anon_sym_function, 699),
     (mozjs_sym_optional_chain, 697), (mozjs_anon_sym_new, 699),
     (mozjs_anon_sym_AMP_AMP, 697), (mozjs_anon_sym_PIPE_PIPE, 697),
     (mozjs_anon_sym_GT_GT, 699), (mozjs_anon_sym_GT_GT_GT, 697),
     (mozjs_anon_sym_LT_LT, 697), (mozjs_anon_sym_AMP, 699),
     (mozjs_anon_sym_CARET, 697), (mozjs_anon_sym_PIPE, 699),
     (mozjs_anon_sym_PLUS, 699), (mozjs_anon_sym_DASH, 699),
     (mozjs_anon_sym_SLASH, 699), (mozjs_anon_sym_PERCENT, 697),
     (mozjs_anon_sym_STAR_STAR, 697), (mozjs_anon_sym_LT_EQ, 697),
     (mozjs_anon_sym_EQ_EQ, 699), (mozjs_anon_sym_EQ_EQ_EQ, 697),
     (mozjs_anon_sym_BANG_EQ, 699), (mozjs_anon_sym_BANG_EQ_EQ, 697),
     (mozjs_anon_sym_GT_EQ, 697), (mozjs_anon_sym_QMARK_QMARK, 697),
     (mozjs_anon_sym_instanceof, 699), (mozjs_anon_sym_BANG, 699),
     (mozjs_anon_sym_TILDE, 697), (mozjs_anon_sym_typeof, 699),
     (mozjs_anon_sym_void, 699), (mozjs_anon_sym_delete, 699),
     (mozjs_anon_sym_PLUS_PLUS, 697), (mozjs_anon_sym_DASH_DASH, 697),
     (mozjs_sym_comment, 5), (mozjs_anon_sym_BQUOTE, 697),
     (mozjs_sym_number, 697), (mozjs_sym_private_property_identifier, 699),
     (mozjs_sym_this, 699), (mozjs_sym_super, 699),
     (mozjs_sym_true, 699), (mozjs_sym_false, 699),
     (mozjs_sym_null, 699), (mozjs_sym_undefined, 699),
     (mozjs_anon_sym_AT, 697), (mozjs_anon_sym_static, 699),
     (mozjs_anon_sym_get, 699), (mozjs_anon_sym_set, 699),
     (mozjs_sym_preproc, 697), (mozjs_sym__automatic_semicolon, 701),
     (mozjs_sym__ternary_qmark, 697), (mozjs_sym_html_comment, 5)]"

definition mozjs_parse_row_87 :: "(TSSymbol \<times> nat) list" where
  "mozjs_parse_row_87 =
    [(ts_builtin_sym_end, 703), (mozjs_sym_identifier, 705),
     (mozjs_anon_sym_export, 705), (mozjs_anon_sym_STAR, 705),
     (mozjs_anon_sym_default, 705), (mozjs_anon_sym_LBRACE, 703),
     (mozjs_anon_sym_COMMA, 703), (mozjs_anon_sym_RBRACE, 703),
     (mozjs_anon_sym_import, 705), (mozjs_anon_sym_with, 705),
     (mozjs_anon_sym_var, 705), (mozjs_anon_sym_let, 705),
     (mozjs_anon_sym_const, 705), (mozjs_anon_sym_using, 705),
     (mozjs_anon_sym_await, 705), (mozjs_anon_sym_of, 705),
     (mozjs_anon_sym_else, 705), (mozjs_anon_sym_if, 705),
     (mozjs_anon_sym_switch, 705), (mozjs_anon_sym_for, 705),
     (mozjs_anon_sym_LPAREN, 703), (mozjs_anon_sym_SEMI, 703),
     (mozjs_anon_sym_in, 705), (mozjs_anon_sym_while, 705),
     (mozjs_anon_sym_do, 705), (mozjs_anon_sym_try, 705),
     (mozjs_anon_sym_break, 705), (mozjs_anon_sym_continue, 705),
     (mozjs_anon_sym_debugger, 705), (mozjs_anon_sym_return, 705),
     (mozjs_anon_sym_throw, 705), (mozjs_anon_sym_case, 705),
     (mozjs_anon_sym_yield, 705), (mozjs_anon_sym_LBRACK, 703),
     (mozjs_anon_sym_LT, 705), (mozjs_anon_sym_GT, 705),
     (mozjs_anon_sym_DOT, 705), (mozjs_anon_sym_DQUOTE, 703),
     (mozjs_anon_sym_SQUOTE, 703), (mozjs_anon_sym_class, 705),
     (mozjs_anon_sym_async, 705), (mozjs_anon_sym_function, 705),
     (mozjs_sym_optional_chain, 703), (mozjs_anon_sym_new, 705),
     (mozjs_anon_sym_AMP_AMP, 703), (mozjs_anon_sym_PIPE_PIPE, 703),
     (mozjs_anon_sym_GT_GT, 705), (mozjs_anon_sym_GT_GT_GT, 703),
     (mozjs_anon_sym_LT_LT, 703), (mozjs_anon_sym_AMP, 705),
     (mozjs_anon_sym_CARET, 703), (mozjs_anon_sym_PIPE, 705),
     (mozjs_anon_sym_PLUS, 705), (mozjs_anon_sym_DASH, 705),
     (mozjs_anon_sym_SLASH, 705), (mozjs_anon_sym_PERCENT, 703),
     (mozjs_anon_sym_STAR_STAR, 703), (mozjs_anon_sym_LT_EQ, 703),
     (mozjs_anon_sym_EQ_EQ, 705), (mozjs_anon_sym_EQ_EQ_EQ, 703),
     (mozjs_anon_sym_BANG_EQ, 705), (mozjs_anon_sym_BANG_EQ_EQ, 703),
     (mozjs_anon_sym_GT_EQ, 703), (mozjs_anon_sym_QMARK_QMARK, 703),
     (mozjs_anon_sym_instanceof, 705), (mozjs_anon_sym_BANG, 705),
     (mozjs_anon_sym_TILDE, 703), (mozjs_anon_sym_typeof, 705),
     (mozjs_anon_sym_void, 705), (mozjs_anon_sym_delete, 705),
     (mozjs_anon_sym_PLUS_PLUS, 703), (mozjs_anon_sym_DASH_DASH, 703),
     (mozjs_sym_comment, 5), (mozjs_anon_sym_BQUOTE, 703),
     (mozjs_sym_number, 703), (mozjs_sym_private_property_identifier, 705),
     (mozjs_sym_this, 705), (mozjs_sym_super, 705),
     (mozjs_sym_true, 705), (mozjs_sym_false, 705),
     (mozjs_sym_null, 705), (mozjs_sym_undefined, 705),
     (mozjs_anon_sym_AT, 703), (mozjs_anon_sym_static, 705),
     (mozjs_anon_sym_get, 705), (mozjs_anon_sym_set, 705),
     (mozjs_sym_preproc, 703), (mozjs_sym__automatic_semicolon, 703),
     (mozjs_sym__ternary_qmark, 703), (mozjs_sym_html_comment, 5)]"

definition mozjs_parse_row_88 :: "(TSSymbol \<times> nat) list" where
  "mozjs_parse_row_88 =
    [(ts_builtin_sym_end, 703), (mozjs_sym_identifier, 705),
     (mozjs_anon_sym_export, 705), (mozjs_anon_sym_STAR, 705),
     (mozjs_anon_sym_default, 705), (mozjs_anon_sym_LBRACE, 703),
     (mozjs_anon_sym_COMMA, 703), (mozjs_anon_sym_RBRACE, 703),
     (mozjs_anon_sym_import, 705), (mozjs_anon_sym_with, 705),
     (mozjs_anon_sym_var, 705), (mozjs_anon_sym_let, 705),
     (mozjs_anon_sym_const, 705), (mozjs_anon_sym_using, 705),
     (mozjs_anon_sym_await, 705), (mozjs_anon_sym_of, 705),
     (mozjs_anon_sym_else, 705), (mozjs_anon_sym_if, 705),
     (mozjs_anon_sym_switch, 705), (mozjs_anon_sym_for, 705),
     (mozjs_anon_sym_LPAREN, 703), (mozjs_anon_sym_SEMI, 703),
     (mozjs_anon_sym_in, 705), (mozjs_anon_sym_while, 705),
     (mozjs_anon_sym_do, 705), (mozjs_anon_sym_try, 705),
     (mozjs_anon_sym_break, 705), (mozjs_anon_sym_continue, 705),
     (mozjs_anon_sym_debugger, 705), (mozjs_anon_sym_return, 705),
     (mozjs_anon_sym_throw, 705), (mozjs_anon_sym_case, 705),
     (mozjs_anon_sym_yield, 705), (mozjs_anon_sym_LBRACK, 703),
     (mozjs_anon_sym_LT, 705), (mozjs_anon_sym_GT, 705),
     (mozjs_anon_sym_DOT, 705), (mozjs_anon_sym_DQUOTE, 703),
     (mozjs_anon_sym_SQUOTE, 703), (mozjs_anon_sym_class, 705),
     (mozjs_anon_sym_async, 705), (mozjs_anon_sym_function, 705),
     (mozjs_sym_optional_chain, 703), (mozjs_anon_sym_new, 705),
     (mozjs_anon_sym_AMP_AMP, 703), (mozjs_anon_sym_PIPE_PIPE, 703),
     (mozjs_anon_sym_GT_GT, 705), (mozjs_anon_sym_GT_GT_GT, 703),
     (mozjs_anon_sym_LT_LT, 703), (mozjs_anon_sym_AMP, 705),
     (mozjs_anon_sym_CARET, 703), (mozjs_anon_sym_PIPE, 705),
     (mozjs_anon_sym_PLUS, 705), (mozjs_anon_sym_DASH, 705),
     (mozjs_anon_sym_SLASH, 705), (mozjs_anon_sym_PERCENT, 703),
     (mozjs_anon_sym_STAR_STAR, 703), (mozjs_anon_sym_LT_EQ, 703),
     (mozjs_anon_sym_EQ_EQ, 705), (mozjs_anon_sym_EQ_EQ_EQ, 703),
     (mozjs_anon_sym_BANG_EQ, 705), (mozjs_anon_sym_BANG_EQ_EQ, 703),
     (mozjs_anon_sym_GT_EQ, 703), (mozjs_anon_sym_QMARK_QMARK, 703),
     (mozjs_anon_sym_instanceof, 705), (mozjs_anon_sym_BANG, 705),
     (mozjs_anon_sym_TILDE, 703), (mozjs_anon_sym_typeof, 705),
     (mozjs_anon_sym_void, 705), (mozjs_anon_sym_delete, 705),
     (mozjs_anon_sym_PLUS_PLUS, 703), (mozjs_anon_sym_DASH_DASH, 703),
     (mozjs_sym_comment, 5), (mozjs_anon_sym_BQUOTE, 703),
     (mozjs_sym_number, 703), (mozjs_sym_private_property_identifier, 705),
     (mozjs_sym_this, 705), (mozjs_sym_super, 705),
     (mozjs_sym_true, 705), (mozjs_sym_false, 705),
     (mozjs_sym_null, 705), (mozjs_sym_undefined, 705),
     (mozjs_anon_sym_AT, 703), (mozjs_anon_sym_static, 705),
     (mozjs_anon_sym_get, 705), (mozjs_anon_sym_set, 705),
     (mozjs_sym_preproc, 703), (mozjs_sym__automatic_semicolon, 707),
     (mozjs_sym__ternary_qmark, 703), (mozjs_sym_html_comment, 5)]"

definition mozjs_parse_row_89 :: "(TSSymbol \<times> nat) list" where
  "mozjs_parse_row_89 =
    [(ts_builtin_sym_end, 709), (mozjs_sym_identifier, 711),
     (mozjs_anon_sym_export, 711), (mozjs_anon_sym_STAR, 711),
     (mozjs_anon_sym_default, 711), (mozjs_anon_sym_LBRACE, 709),
     (mozjs_anon_sym_COMMA, 709), (mozjs_anon_sym_RBRACE, 709),
     (mozjs_anon_sym_import, 711), (mozjs_anon_sym_with, 711),
     (mozjs_anon_sym_var, 711), (mozjs_anon_sym_let, 711),
     (mozjs_anon_sym_const, 711), (mozjs_anon_sym_using, 711),
     (mozjs_anon_sym_await, 711), (mozjs_anon_sym_of, 711),
     (mozjs_anon_sym_else, 711), (mozjs_anon_sym_if, 711),
     (mozjs_anon_sym_switch, 711), (mozjs_anon_sym_for, 711),
     (mozjs_anon_sym_LPAREN, 709), (mozjs_anon_sym_SEMI, 709),
     (mozjs_anon_sym_in, 711), (mozjs_anon_sym_while, 711),
     (mozjs_anon_sym_do, 711), (mozjs_anon_sym_try, 711),
     (mozjs_anon_sym_break, 711), (mozjs_anon_sym_continue, 711),
     (mozjs_anon_sym_debugger, 711), (mozjs_anon_sym_return, 711),
     (mozjs_anon_sym_throw, 711), (mozjs_anon_sym_case, 711),
     (mozjs_anon_sym_yield, 711), (mozjs_anon_sym_LBRACK, 709),
     (mozjs_anon_sym_LT, 711), (mozjs_anon_sym_GT, 711),
     (mozjs_anon_sym_DOT, 711), (mozjs_anon_sym_DQUOTE, 709),
     (mozjs_anon_sym_SQUOTE, 709), (mozjs_anon_sym_class, 711),
     (mozjs_anon_sym_async, 711), (mozjs_anon_sym_function, 711),
     (mozjs_sym_optional_chain, 709), (mozjs_anon_sym_new, 711),
     (mozjs_anon_sym_AMP_AMP, 709), (mozjs_anon_sym_PIPE_PIPE, 709),
     (mozjs_anon_sym_GT_GT, 711), (mozjs_anon_sym_GT_GT_GT, 709),
     (mozjs_anon_sym_LT_LT, 709), (mozjs_anon_sym_AMP, 711),
     (mozjs_anon_sym_CARET, 709), (mozjs_anon_sym_PIPE, 711),
     (mozjs_anon_sym_PLUS, 711), (mozjs_anon_sym_DASH, 711),
     (mozjs_anon_sym_SLASH, 711), (mozjs_anon_sym_PERCENT, 709),
     (mozjs_anon_sym_STAR_STAR, 709), (mozjs_anon_sym_LT_EQ, 709),
     (mozjs_anon_sym_EQ_EQ, 711), (mozjs_anon_sym_EQ_EQ_EQ, 709),
     (mozjs_anon_sym_BANG_EQ, 711), (mozjs_anon_sym_BANG_EQ_EQ, 709),
     (mozjs_anon_sym_GT_EQ, 709), (mozjs_anon_sym_QMARK_QMARK, 709),
     (mozjs_anon_sym_instanceof, 711), (mozjs_anon_sym_BANG, 711),
     (mozjs_anon_sym_TILDE, 709), (mozjs_anon_sym_typeof, 711),
     (mozjs_anon_sym_void, 711), (mozjs_anon_sym_delete, 711),
     (mozjs_anon_sym_PLUS_PLUS, 709), (mozjs_anon_sym_DASH_DASH, 709),
     (mozjs_sym_comment, 5), (mozjs_anon_sym_BQUOTE, 709),
     (mozjs_sym_number, 709), (mozjs_sym_private_property_identifier, 711),
     (mozjs_sym_this, 711), (mozjs_sym_super, 711),
     (mozjs_sym_true, 711), (mozjs_sym_false, 711),
     (mozjs_sym_null, 711), (mozjs_sym_undefined, 711),
     (mozjs_anon_sym_AT, 709), (mozjs_anon_sym_static, 711),
     (mozjs_anon_sym_get, 711), (mozjs_anon_sym_set, 711),
     (mozjs_sym_preproc, 709), (mozjs_sym__automatic_semicolon, 709),
     (mozjs_sym__ternary_qmark, 709), (mozjs_sym_html_comment, 5)]"

definition mozjs_parse_row_90 :: "(TSSymbol \<times> nat) list" where
  "mozjs_parse_row_90 =
    [(ts_builtin_sym_end, 713), (mozjs_sym_identifier, 715),
     (mozjs_anon_sym_export, 715), (mozjs_anon_sym_STAR, 715),
     (mozjs_anon_sym_default, 715), (mozjs_anon_sym_LBRACE, 713),
     (mozjs_anon_sym_COMMA, 713), (mozjs_anon_sym_RBRACE, 713),
     (mozjs_anon_sym_import, 715), (mozjs_anon_sym_with, 715),
     (mozjs_anon_sym_var, 715), (mozjs_anon_sym_let, 715),
     (mozjs_anon_sym_const, 715), (mozjs_anon_sym_using, 715),
     (mozjs_anon_sym_await, 715), (mozjs_anon_sym_of, 715),
     (mozjs_anon_sym_else, 715), (mozjs_anon_sym_if, 715),
     (mozjs_anon_sym_switch, 715), (mozjs_anon_sym_for, 715),
     (mozjs_anon_sym_LPAREN, 713), (mozjs_anon_sym_SEMI, 713),
     (mozjs_anon_sym_in, 715), (mozjs_anon_sym_while, 715),
     (mozjs_anon_sym_do, 715), (mozjs_anon_sym_try, 715),
     (mozjs_anon_sym_break, 715), (mozjs_anon_sym_continue, 715),
     (mozjs_anon_sym_debugger, 715), (mozjs_anon_sym_return, 715),
     (mozjs_anon_sym_throw, 715), (mozjs_anon_sym_case, 715),
     (mozjs_anon_sym_yield, 715), (mozjs_anon_sym_LBRACK, 713),
     (mozjs_anon_sym_LT, 715), (mozjs_anon_sym_GT, 715),
     (mozjs_anon_sym_DOT, 715), (mozjs_anon_sym_DQUOTE, 713),
     (mozjs_anon_sym_SQUOTE, 713), (mozjs_anon_sym_class, 715),
     (mozjs_anon_sym_async, 715), (mozjs_anon_sym_function, 715),
     (mozjs_sym_optional_chain, 713), (mozjs_anon_sym_new, 715),
     (mozjs_anon_sym_AMP_AMP, 713), (mozjs_anon_sym_PIPE_PIPE, 713),
     (mozjs_anon_sym_GT_GT, 715), (mozjs_anon_sym_GT_GT_GT, 713),
     (mozjs_anon_sym_LT_LT, 713), (mozjs_anon_sym_AMP, 715),
     (mozjs_anon_sym_CARET, 713), (mozjs_anon_sym_PIPE, 715),
     (mozjs_anon_sym_PLUS, 715), (mozjs_anon_sym_DASH, 715),
     (mozjs_anon_sym_SLASH, 715), (mozjs_anon_sym_PERCENT, 713),
     (mozjs_anon_sym_STAR_STAR, 713), (mozjs_anon_sym_LT_EQ, 713),
     (mozjs_anon_sym_EQ_EQ, 715), (mozjs_anon_sym_EQ_EQ_EQ, 713),
     (mozjs_anon_sym_BANG_EQ, 715), (mozjs_anon_sym_BANG_EQ_EQ, 713),
     (mozjs_anon_sym_GT_EQ, 713), (mozjs_anon_sym_QMARK_QMARK, 713),
     (mozjs_anon_sym_instanceof, 715), (mozjs_anon_sym_BANG, 715),
     (mozjs_anon_sym_TILDE, 713), (mozjs_anon_sym_typeof, 715),
     (mozjs_anon_sym_void, 715), (mozjs_anon_sym_delete, 715),
     (mozjs_anon_sym_PLUS_PLUS, 713), (mozjs_anon_sym_DASH_DASH, 713),
     (mozjs_sym_comment, 5), (mozjs_anon_sym_BQUOTE, 713),
     (mozjs_sym_number, 713), (mozjs_sym_private_property_identifier, 715),
     (mozjs_sym_this, 715), (mozjs_sym_super, 715),
     (mozjs_sym_true, 715), (mozjs_sym_false, 715),
     (mozjs_sym_null, 715), (mozjs_sym_undefined, 715),
     (mozjs_anon_sym_AT, 713), (mozjs_anon_sym_static, 715),
     (mozjs_anon_sym_get, 715), (mozjs_anon_sym_set, 715),
     (mozjs_sym_preproc, 713), (mozjs_sym__automatic_semicolon, 713),
     (mozjs_sym__ternary_qmark, 713), (mozjs_sym_html_comment, 5)]"

definition mozjs_parse_row_91 :: "(TSSymbol \<times> nat) list" where
  "mozjs_parse_row_91 =
    [(ts_builtin_sym_end, 717), (mozjs_sym_identifier, 719),
     (mozjs_anon_sym_export, 719), (mozjs_anon_sym_STAR, 719),
     (mozjs_anon_sym_default, 719), (mozjs_anon_sym_LBRACE, 717),
     (mozjs_anon_sym_COMMA, 717), (mozjs_anon_sym_RBRACE, 717),
     (mozjs_anon_sym_import, 719), (mozjs_anon_sym_with, 719),
     (mozjs_anon_sym_var, 719), (mozjs_anon_sym_let, 719),
     (mozjs_anon_sym_const, 719), (mozjs_anon_sym_using, 719),
     (mozjs_anon_sym_await, 719), (mozjs_anon_sym_of, 719),
     (mozjs_anon_sym_else, 719), (mozjs_anon_sym_if, 719),
     (mozjs_anon_sym_switch, 719), (mozjs_anon_sym_for, 719),
     (mozjs_anon_sym_LPAREN, 717), (mozjs_anon_sym_SEMI, 717),
     (mozjs_anon_sym_in, 719), (mozjs_anon_sym_while, 719),
     (mozjs_anon_sym_do, 719), (mozjs_anon_sym_try, 719),
     (mozjs_anon_sym_break, 719), (mozjs_anon_sym_continue, 719),
     (mozjs_anon_sym_debugger, 719), (mozjs_anon_sym_return, 719),
     (mozjs_anon_sym_throw, 719), (mozjs_anon_sym_case, 719),
     (mozjs_anon_sym_yield, 719), (mozjs_anon_sym_LBRACK, 717),
     (mozjs_anon_sym_LT, 719), (mozjs_anon_sym_GT, 719),
     (mozjs_anon_sym_DOT, 719), (mozjs_anon_sym_DQUOTE, 717),
     (mozjs_anon_sym_SQUOTE, 717), (mozjs_anon_sym_class, 719),
     (mozjs_anon_sym_async, 719), (mozjs_anon_sym_function, 719),
     (mozjs_sym_optional_chain, 717), (mozjs_anon_sym_new, 719),
     (mozjs_anon_sym_AMP_AMP, 717), (mozjs_anon_sym_PIPE_PIPE, 717),
     (mozjs_anon_sym_GT_GT, 719), (mozjs_anon_sym_GT_GT_GT, 717),
     (mozjs_anon_sym_LT_LT, 717), (mozjs_anon_sym_AMP, 719),
     (mozjs_anon_sym_CARET, 717), (mozjs_anon_sym_PIPE, 719),
     (mozjs_anon_sym_PLUS, 719), (mozjs_anon_sym_DASH, 719),
     (mozjs_anon_sym_SLASH, 719), (mozjs_anon_sym_PERCENT, 717),
     (mozjs_anon_sym_STAR_STAR, 717), (mozjs_anon_sym_LT_EQ, 717),
     (mozjs_anon_sym_EQ_EQ, 719), (mozjs_anon_sym_EQ_EQ_EQ, 717),
     (mozjs_anon_sym_BANG_EQ, 719), (mozjs_anon_sym_BANG_EQ_EQ, 717),
     (mozjs_anon_sym_GT_EQ, 717), (mozjs_anon_sym_QMARK_QMARK, 717),
     (mozjs_anon_sym_instanceof, 719), (mozjs_anon_sym_BANG, 719),
     (mozjs_anon_sym_TILDE, 717), (mozjs_anon_sym_typeof, 719),
     (mozjs_anon_sym_void, 719), (mozjs_anon_sym_delete, 719),
     (mozjs_anon_sym_PLUS_PLUS, 717), (mozjs_anon_sym_DASH_DASH, 717),
     (mozjs_sym_comment, 5), (mozjs_anon_sym_BQUOTE, 717),
     (mozjs_sym_number, 717), (mozjs_sym_private_property_identifier, 719),
     (mozjs_sym_this, 719), (mozjs_sym_super, 719),
     (mozjs_sym_true, 719), (mozjs_sym_false, 719),
     (mozjs_sym_null, 719), (mozjs_sym_undefined, 719),
     (mozjs_anon_sym_AT, 717), (mozjs_anon_sym_static, 719),
     (mozjs_anon_sym_get, 719), (mozjs_anon_sym_set, 719),
     (mozjs_sym_preproc, 717), (mozjs_sym__automatic_semicolon, 717),
     (mozjs_sym__ternary_qmark, 717), (mozjs_sym_html_comment, 5)]"

definition mozjs_parse_row_92 :: "(TSSymbol \<times> nat) list" where
  "mozjs_parse_row_92 =
    [(ts_builtin_sym_end, 697), (mozjs_sym_identifier, 699),
     (mozjs_anon_sym_export, 699), (mozjs_anon_sym_STAR, 721),
     (mozjs_anon_sym_default, 699), (mozjs_anon_sym_LBRACE, 697),
     (mozjs_anon_sym_COMMA, 723), (mozjs_anon_sym_RBRACE, 697),
     (mozjs_anon_sym_import, 699), (mozjs_anon_sym_with, 699),
     (mozjs_anon_sym_var, 699), (mozjs_anon_sym_let, 699),
     (mozjs_anon_sym_const, 699), (mozjs_anon_sym_using, 699),
     (mozjs_anon_sym_await, 699), (mozjs_anon_sym_else, 699),
     (mozjs_anon_sym_if, 699), (mozjs_anon_sym_switch, 699),
     (mozjs_anon_sym_for, 699), (mozjs_anon_sym_LPAREN, 697),
     (mozjs_anon_sym_SEMI, 697), (mozjs_anon_sym_in, 721),
     (mozjs_anon_sym_while, 699), (mozjs_anon_sym_do, 699),
     (mozjs_anon_sym_try, 699), (mozjs_anon_sym_break, 699),
     (mozjs_anon_sym_continue, 699), (mozjs_anon_sym_debugger, 699),
     (mozjs_anon_sym_return, 699), (mozjs_anon_sym_throw, 699),
     (mozjs_anon_sym_case, 699), (mozjs_anon_sym_yield, 699),
     (mozjs_anon_sym_EQ, 725), (mozjs_anon_sym_LBRACK, 697),
     (mozjs_anon_sym_LT, 699), (mozjs_anon_sym_GT, 721),
     (mozjs_anon_sym_DOT, 721), (mozjs_anon_sym_DQUOTE, 697),
     (mozjs_anon_sym_SQUOTE, 697), (mozjs_anon_sym_class, 699),
     (mozjs_anon_sym_async, 699), (mozjs_anon_sym_function, 699),
     (mozjs_sym_optional_chain, 723), (mozjs_anon_sym_new, 699),
     (mozjs_anon_sym_AMP_AMP, 723), (mozjs_anon_sym_PIPE_PIPE, 723),
     (mozjs_anon_sym_GT_GT, 721), (mozjs_anon_sym_GT_GT_GT, 723),
     (mozjs_anon_sym_LT_LT, 723), (mozjs_anon_sym_AMP, 721),
     (mozjs_anon_sym_CARET, 723), (mozjs_anon_sym_PIPE, 721),
     (mozjs_anon_sym_PLUS, 699), (mozjs_anon_sym_DASH, 699),
     (mozjs_anon_sym_SLASH, 699), (mozjs_anon_sym_PERCENT, 723),
     (mozjs_anon_sym_STAR_STAR, 723), (mozjs_anon_sym_LT_EQ, 723),
     (mozjs_anon_sym_EQ_EQ, 721), (mozjs_anon_sym_EQ_EQ_EQ, 723),
     (mozjs_anon_sym_BANG_EQ, 721), (mozjs_anon_sym_BANG_EQ_EQ, 723),
     (mozjs_anon_sym_GT_EQ, 723), (mozjs_anon_sym_QMARK_QMARK, 723),
     (mozjs_anon_sym_instanceof, 721), (mozjs_anon_sym_BANG, 699),
     (mozjs_anon_sym_TILDE, 697), (mozjs_anon_sym_typeof, 699),
     (mozjs_anon_sym_void, 699), (mozjs_anon_sym_delete, 699),
     (mozjs_anon_sym_PLUS_PLUS, 697), (mozjs_anon_sym_DASH_DASH, 697),
     (mozjs_sym_comment, 5), (mozjs_anon_sym_BQUOTE, 697),
     (mozjs_sym_number, 697), (mozjs_sym_private_property_identifier, 699),
     (mozjs_sym_this, 699), (mozjs_sym_super, 699),
     (mozjs_sym_true, 699), (mozjs_sym_false, 699),
     (mozjs_sym_null, 699), (mozjs_sym_undefined, 699),
     (mozjs_anon_sym_AT, 697), (mozjs_anon_sym_static, 699),
     (mozjs_anon_sym_get, 699), (mozjs_anon_sym_set, 699),
     (mozjs_sym_preproc, 697), (mozjs_sym__automatic_semicolon, 727),
     (mozjs_sym__ternary_qmark, 723), (mozjs_sym_html_comment, 5)]"

definition mozjs_parse_row_93 :: "(TSSymbol \<times> nat) list" where
  "mozjs_parse_row_93 =
    [(ts_builtin_sym_end, 729), (mozjs_sym_identifier, 731),
     (mozjs_anon_sym_export, 731), (mozjs_anon_sym_STAR, 733),
     (mozjs_anon_sym_default, 731), (mozjs_anon_sym_LBRACE, 729),
     (mozjs_anon_sym_COMMA, 735), (mozjs_anon_sym_RBRACE, 729),
     (mozjs_anon_sym_import, 731), (mozjs_anon_sym_with, 731),
     (mozjs_anon_sym_var, 731), (mozjs_anon_sym_let, 731),
     (mozjs_anon_sym_const, 731), (mozjs_anon_sym_using, 731),
     (mozjs_anon_sym_await, 731), (mozjs_anon_sym_else, 731),
     (mozjs_anon_sym_if, 731), (mozjs_anon_sym_switch, 731),
     (mozjs_anon_sym_for, 731), (mozjs_anon_sym_LPAREN, 729),
     (mozjs_anon_sym_SEMI, 729), (mozjs_anon_sym_in, 733),
     (mozjs_anon_sym_while, 731), (mozjs_anon_sym_do, 731),
     (mozjs_anon_sym_try, 731), (mozjs_anon_sym_break, 731),
     (mozjs_anon_sym_continue, 731), (mozjs_anon_sym_debugger, 731),
     (mozjs_anon_sym_return, 731), (mozjs_anon_sym_throw, 731),
     (mozjs_anon_sym_case, 731), (mozjs_anon_sym_yield, 731),
     (mozjs_anon_sym_LBRACK, 729), (mozjs_anon_sym_LT, 731),
     (mozjs_anon_sym_GT, 733), (mozjs_anon_sym_DOT, 733),
     (mozjs_anon_sym_DQUOTE, 729), (mozjs_anon_sym_SQUOTE, 729),
     (mozjs_anon_sym_class, 731), (mozjs_anon_sym_async, 731),
     (mozjs_anon_sym_function, 731), (mozjs_sym_optional_chain, 735),
     (mozjs_anon_sym_new, 731), (mozjs_anon_sym_AMP_AMP, 735),
     (mozjs_anon_sym_PIPE_PIPE, 735), (mozjs_anon_sym_GT_GT, 733),
     (mozjs_anon_sym_GT_GT_GT, 735), (mozjs_anon_sym_LT_LT, 735),
     (mozjs_anon_sym_AMP, 733), (mozjs_anon_sym_CARET, 735),
     (mozjs_anon_sym_PIPE, 733), (mozjs_anon_sym_PLUS, 731),
     (mozjs_anon_sym_DASH, 731), (mozjs_anon_sym_SLASH, 731),
     (mozjs_anon_sym_PERCENT, 735), (mozjs_anon_sym_STAR_STAR, 735),
     (mozjs_anon_sym_LT_EQ, 735), (mozjs_anon_sym_EQ_EQ, 733),
     (mozjs_anon_sym_EQ_EQ_EQ, 735), (mozjs_anon_sym_BANG_EQ, 733),
     (mozjs_anon_sym_BANG_EQ_EQ, 735), (mozjs_anon_sym_GT_EQ, 735),
     (mozjs_anon_sym_QMARK_QMARK, 735), (mozjs_anon_sym_instanceof, 733),
     (mozjs_anon_sym_BANG, 731), (mozjs_anon_sym_TILDE, 729),
     (mozjs_anon_sym_typeof, 731), (mozjs_anon_sym_void, 731),
     (mozjs_anon_sym_delete, 731), (mozjs_anon_sym_PLUS_PLUS, 729),
     (mozjs_anon_sym_DASH_DASH, 729), (mozjs_sym_comment, 5),
     (mozjs_anon_sym_BQUOTE, 729), (mozjs_sym_number, 729),
     (mozjs_sym_private_property_identifier, 731), (mozjs_sym_this, 731),
     (mozjs_sym_super, 731), (mozjs_sym_true, 731),
     (mozjs_sym_false, 731), (mozjs_sym_null, 731),
     (mozjs_sym_undefined, 731), (mozjs_anon_sym_AT, 729),
     (mozjs_anon_sym_static, 731), (mozjs_anon_sym_get, 731),
     (mozjs_anon_sym_set, 731), (mozjs_sym_preproc, 729),
     (mozjs_sym__automatic_semicolon, 737), (mozjs_sym__ternary_qmark, 735),
     (mozjs_sym_html_comment, 5)]"

definition mozjs_parse_row_94 :: "(TSSymbol \<times> nat) list" where
  "mozjs_parse_row_94 =
    [(ts_builtin_sym_end, 739), (mozjs_sym_identifier, 741),
     (mozjs_anon_sym_export, 741), (mozjs_anon_sym_STAR, 743),
     (mozjs_anon_sym_default, 741), (mozjs_anon_sym_LBRACE, 739),
     (mozjs_anon_sym_COMMA, 745), (mozjs_anon_sym_RBRACE, 739),
     (mozjs_anon_sym_import, 741), (mozjs_anon_sym_with, 741),
     (mozjs_anon_sym_var, 741), (mozjs_anon_sym_let, 741),
     (mozjs_anon_sym_const, 741), (mozjs_anon_sym_using, 741),
     (mozjs_anon_sym_await, 741), (mozjs_anon_sym_else, 741),
     (mozjs_anon_sym_if, 741), (mozjs_anon_sym_switch, 741),
     (mozjs_anon_sym_for, 741), (mozjs_anon_sym_LPAREN, 739),
     (mozjs_anon_sym_SEMI, 739), (mozjs_anon_sym_in, 743),
     (mozjs_anon_sym_while, 741), (mozjs_anon_sym_do, 741),
     (mozjs_anon_sym_try, 741), (mozjs_anon_sym_break, 741),
     (mozjs_anon_sym_continue, 741), (mozjs_anon_sym_debugger, 741),
     (mozjs_anon_sym_return, 741), (mozjs_anon_sym_throw, 741),
     (mozjs_anon_sym_case, 741), (mozjs_anon_sym_yield, 741),
     (mozjs_anon_sym_LBRACK, 739), (mozjs_anon_sym_LT, 741),
     (mozjs_anon_sym_GT, 743), (mozjs_anon_sym_DOT, 743),
     (mozjs_anon_sym_DQUOTE, 739), (mozjs_anon_sym_SQUOTE, 739),
     (mozjs_anon_sym_class, 741), (mozjs_anon_sym_async, 741),
     (mozjs_anon_sym_function, 741), (mozjs_sym_optional_chain, 745),
     (mozjs_anon_sym_new, 741), (mozjs_anon_sym_AMP_AMP, 745),
     (mozjs_anon_sym_PIPE_PIPE, 745), (mozjs_anon_sym_GT_GT, 743),
     (mozjs_anon_sym_GT_GT_GT, 745), (mozjs_anon_sym_LT_LT, 745),
     (mozjs_anon_sym_AMP, 743), (mozjs_anon_sym_CARET, 745),
     (mozjs_anon_sym_PIPE, 743), (mozjs_anon_sym_PLUS, 741),
     (mozjs_anon_sym_DASH, 741), (mozjs_anon_sym_SLASH, 741),
     (mozjs_anon_sym_PERCENT, 745), (mozjs_anon_sym_STAR_STAR, 745),
     (mozjs_anon_sym_LT_EQ, 745), (mozjs_anon_sym_EQ_EQ, 743),
     (mozjs_anon_sym_EQ_EQ_EQ, 745), (mozjs_anon_sym_BANG_EQ, 743),
     (mozjs_anon_sym_BANG_EQ_EQ, 745), (mozjs_anon_sym_GT_EQ, 745),
     (mozjs_anon_sym_QMARK_QMARK, 745), (mozjs_anon_sym_instanceof, 743),
     (mozjs_anon_sym_BANG, 741), (mozjs_anon_sym_TILDE, 739),
     (mozjs_anon_sym_typeof, 741), (mozjs_anon_sym_void, 741),
     (mozjs_anon_sym_delete, 741), (mozjs_anon_sym_PLUS_PLUS, 739),
     (mozjs_anon_sym_DASH_DASH, 739), (mozjs_sym_comment, 5),
     (mozjs_anon_sym_BQUOTE, 739), (mozjs_sym_number, 739),
     (mozjs_sym_private_property_identifier, 741), (mozjs_sym_this, 741),
     (mozjs_sym_super, 741), (mozjs_sym_true, 741),
     (mozjs_sym_false, 741), (mozjs_sym_null, 741),
     (mozjs_sym_undefined, 741), (mozjs_anon_sym_AT, 739),
     (mozjs_anon_sym_static, 741), (mozjs_anon_sym_get, 741),
     (mozjs_anon_sym_set, 741), (mozjs_sym_preproc, 739),
     (mozjs_sym__automatic_semicolon, 747), (mozjs_sym__ternary_qmark, 745),
     (mozjs_sym_html_comment, 5)]"

definition mozjs_parse_row_95 :: "(TSSymbol \<times> nat) list" where
  "mozjs_parse_row_95 =
    [(ts_builtin_sym_end, 749), (mozjs_sym_identifier, 751),
     (mozjs_anon_sym_export, 751), (mozjs_anon_sym_STAR, 753),
     (mozjs_anon_sym_default, 751), (mozjs_anon_sym_LBRACE, 749),
     (mozjs_anon_sym_COMMA, 755), (mozjs_anon_sym_RBRACE, 749),
     (mozjs_anon_sym_import, 751), (mozjs_anon_sym_with, 751),
     (mozjs_anon_sym_var, 751), (mozjs_anon_sym_let, 751),
     (mozjs_anon_sym_const, 751), (mozjs_anon_sym_using, 751),
     (mozjs_anon_sym_await, 751), (mozjs_anon_sym_else, 751),
     (mozjs_anon_sym_if, 751), (mozjs_anon_sym_switch, 751),
     (mozjs_anon_sym_for, 751), (mozjs_anon_sym_LPAREN, 749),
     (mozjs_anon_sym_SEMI, 749), (mozjs_anon_sym_in, 753),
     (mozjs_anon_sym_while, 751), (mozjs_anon_sym_do, 751),
     (mozjs_anon_sym_try, 751), (mozjs_anon_sym_break, 751),
     (mozjs_anon_sym_continue, 751), (mozjs_anon_sym_debugger, 751),
     (mozjs_anon_sym_return, 751), (mozjs_anon_sym_throw, 751),
     (mozjs_anon_sym_case, 751), (mozjs_anon_sym_yield, 751),
     (mozjs_anon_sym_LBRACK, 749), (mozjs_anon_sym_LT, 751),
     (mozjs_anon_sym_GT, 753), (mozjs_anon_sym_DOT, 753),
     (mozjs_anon_sym_DQUOTE, 749), (mozjs_anon_sym_SQUOTE, 749),
     (mozjs_anon_sym_class, 751), (mozjs_anon_sym_async, 751),
     (mozjs_anon_sym_function, 751), (mozjs_sym_optional_chain, 755),
     (mozjs_anon_sym_new, 751), (mozjs_anon_sym_AMP_AMP, 755),
     (mozjs_anon_sym_PIPE_PIPE, 755), (mozjs_anon_sym_GT_GT, 753),
     (mozjs_anon_sym_GT_GT_GT, 755), (mozjs_anon_sym_LT_LT, 755),
     (mozjs_anon_sym_AMP, 753), (mozjs_anon_sym_CARET, 755),
     (mozjs_anon_sym_PIPE, 753), (mozjs_anon_sym_PLUS, 751),
     (mozjs_anon_sym_DASH, 751), (mozjs_anon_sym_SLASH, 751),
     (mozjs_anon_sym_PERCENT, 755), (mozjs_anon_sym_STAR_STAR, 755),
     (mozjs_anon_sym_LT_EQ, 755), (mozjs_anon_sym_EQ_EQ, 753),
     (mozjs_anon_sym_EQ_EQ_EQ, 755), (mozjs_anon_sym_BANG_EQ, 753),
     (mozjs_anon_sym_BANG_EQ_EQ, 755), (mozjs_anon_sym_GT_EQ, 755),
     (mozjs_anon_sym_QMARK_QMARK, 755), (mozjs_anon_sym_instanceof, 753),
     (mozjs_anon_sym_BANG, 751), (mozjs_anon_sym_TILDE, 749),
     (mozjs_anon_sym_typeof, 751), (mozjs_anon_sym_void, 751),
     (mozjs_anon_sym_delete, 751), (mozjs_anon_sym_PLUS_PLUS, 749),
     (mozjs_anon_sym_DASH_DASH, 749), (mozjs_sym_comment, 5),
     (mozjs_anon_sym_BQUOTE, 749), (mozjs_sym_number, 749),
     (mozjs_sym_private_property_identifier, 751), (mozjs_sym_this, 751),
     (mozjs_sym_super, 751), (mozjs_sym_true, 751),
     (mozjs_sym_false, 751), (mozjs_sym_null, 751),
     (mozjs_sym_undefined, 751), (mozjs_anon_sym_AT, 749),
     (mozjs_anon_sym_static, 751), (mozjs_anon_sym_get, 751),
     (mozjs_anon_sym_set, 751), (mozjs_sym_preproc, 749),
     (mozjs_sym__automatic_semicolon, 757), (mozjs_sym__ternary_qmark, 755),
     (mozjs_sym_html_comment, 5)]"

definition mozjs_parse_row_96 :: "(TSSymbol \<times> nat) list" where
  "mozjs_parse_row_96 =
    [(ts_builtin_sym_end, 759), (mozjs_sym_identifier, 761),
     (mozjs_anon_sym_export, 761), (mozjs_anon_sym_STAR, 763),
     (mozjs_anon_sym_default, 761), (mozjs_anon_sym_LBRACE, 759),
     (mozjs_anon_sym_COMMA, 765), (mozjs_anon_sym_RBRACE, 759),
     (mozjs_anon_sym_import, 761), (mozjs_anon_sym_with, 761),
     (mozjs_anon_sym_var, 761), (mozjs_anon_sym_let, 761),
     (mozjs_anon_sym_const, 761), (mozjs_anon_sym_using, 761),
     (mozjs_anon_sym_await, 761), (mozjs_anon_sym_else, 761),
     (mozjs_anon_sym_if, 761), (mozjs_anon_sym_switch, 761),
     (mozjs_anon_sym_for, 761), (mozjs_anon_sym_LPAREN, 759),
     (mozjs_anon_sym_SEMI, 759), (mozjs_anon_sym_in, 763),
     (mozjs_anon_sym_while, 761), (mozjs_anon_sym_do, 761),
     (mozjs_anon_sym_try, 761), (mozjs_anon_sym_break, 761),
     (mozjs_anon_sym_continue, 761), (mozjs_anon_sym_debugger, 761),
     (mozjs_anon_sym_return, 761), (mozjs_anon_sym_throw, 761),
     (mozjs_anon_sym_case, 761), (mozjs_anon_sym_yield, 761),
     (mozjs_anon_sym_LBRACK, 759), (mozjs_anon_sym_LT, 761),
     (mozjs_anon_sym_GT, 763), (mozjs_anon_sym_DOT, 763),
     (mozjs_anon_sym_DQUOTE, 759), (mozjs_anon_sym_SQUOTE, 759),
     (mozjs_anon_sym_class, 761), (mozjs_anon_sym_async, 761),
     (mozjs_anon_sym_function, 761), (mozjs_sym_optional_chain, 765),
     (mozjs_anon_sym_new, 761), (mozjs_anon_sym_AMP_AMP, 765),
     (mozjs_anon_sym_PIPE_PIPE, 765), (mozjs_anon_sym_GT_GT, 763),
     (mozjs_anon_sym_GT_GT_GT, 765), (mozjs_anon_sym_LT_LT, 765),
     (mozjs_anon_sym_AMP, 763), (mozjs_anon_sym_CARET, 765),
     (mozjs_anon_sym_PIPE, 763), (mozjs_anon_sym_PLUS, 761),
     (mozjs_anon_sym_DASH, 761), (mozjs_anon_sym_SLASH, 761),
     (mozjs_anon_sym_PERCENT, 765), (mozjs_anon_sym_STAR_STAR, 765),
     (mozjs_anon_sym_LT_EQ, 765), (mozjs_anon_sym_EQ_EQ, 763),
     (mozjs_anon_sym_EQ_EQ_EQ, 765), (mozjs_anon_sym_BANG_EQ, 763),
     (mozjs_anon_sym_BANG_EQ_EQ, 765), (mozjs_anon_sym_GT_EQ, 765),
     (mozjs_anon_sym_QMARK_QMARK, 765), (mozjs_anon_sym_instanceof, 763),
     (mozjs_anon_sym_BANG, 761), (mozjs_anon_sym_TILDE, 759),
     (mozjs_anon_sym_typeof, 761), (mozjs_anon_sym_void, 761),
     (mozjs_anon_sym_delete, 761), (mozjs_anon_sym_PLUS_PLUS, 759),
     (mozjs_anon_sym_DASH_DASH, 759), (mozjs_sym_comment, 5),
     (mozjs_anon_sym_BQUOTE, 759), (mozjs_sym_number, 759),
     (mozjs_sym_private_property_identifier, 761), (mozjs_sym_this, 761),
     (mozjs_sym_super, 761), (mozjs_sym_true, 761),
     (mozjs_sym_false, 761), (mozjs_sym_null, 761),
     (mozjs_sym_undefined, 761), (mozjs_anon_sym_AT, 759),
     (mozjs_anon_sym_static, 761), (mozjs_anon_sym_get, 761),
     (mozjs_anon_sym_set, 761), (mozjs_sym_preproc, 759),
     (mozjs_sym__automatic_semicolon, 767), (mozjs_sym__ternary_qmark, 765),
     (mozjs_sym_html_comment, 5)]"

definition mozjs_parse_row_97 :: "(TSSymbol \<times> nat) list" where
  "mozjs_parse_row_97 =
    [(ts_builtin_sym_end, 769), (mozjs_sym_identifier, 771),
     (mozjs_anon_sym_export, 771), (mozjs_anon_sym_STAR, 773),
     (mozjs_anon_sym_default, 771), (mozjs_anon_sym_LBRACE, 769),
     (mozjs_anon_sym_COMMA, 775), (mozjs_anon_sym_RBRACE, 769),
     (mozjs_anon_sym_import, 771), (mozjs_anon_sym_with, 771),
     (mozjs_anon_sym_var, 771), (mozjs_anon_sym_let, 771),
     (mozjs_anon_sym_const, 771), (mozjs_anon_sym_using, 771),
     (mozjs_anon_sym_await, 771), (mozjs_anon_sym_else, 771),
     (mozjs_anon_sym_if, 771), (mozjs_anon_sym_switch, 771),
     (mozjs_anon_sym_for, 771), (mozjs_anon_sym_LPAREN, 769),
     (mozjs_anon_sym_SEMI, 769), (mozjs_anon_sym_in, 773),
     (mozjs_anon_sym_while, 771), (mozjs_anon_sym_do, 771),
     (mozjs_anon_sym_try, 771), (mozjs_anon_sym_break, 771),
     (mozjs_anon_sym_continue, 771), (mozjs_anon_sym_debugger, 771),
     (mozjs_anon_sym_return, 771), (mozjs_anon_sym_throw, 771),
     (mozjs_anon_sym_case, 771), (mozjs_anon_sym_yield, 771),
     (mozjs_anon_sym_LBRACK, 769), (mozjs_anon_sym_LT, 771),
     (mozjs_anon_sym_GT, 773), (mozjs_anon_sym_DOT, 773),
     (mozjs_anon_sym_DQUOTE, 769), (mozjs_anon_sym_SQUOTE, 769),
     (mozjs_anon_sym_class, 771), (mozjs_anon_sym_async, 771),
     (mozjs_anon_sym_function, 771), (mozjs_sym_optional_chain, 775),
     (mozjs_anon_sym_new, 771), (mozjs_anon_sym_AMP_AMP, 775),
     (mozjs_anon_sym_PIPE_PIPE, 775), (mozjs_anon_sym_GT_GT, 773),
     (mozjs_anon_sym_GT_GT_GT, 775), (mozjs_anon_sym_LT_LT, 775),
     (mozjs_anon_sym_AMP, 773), (mozjs_anon_sym_CARET, 775),
     (mozjs_anon_sym_PIPE, 773), (mozjs_anon_sym_PLUS, 771),
     (mozjs_anon_sym_DASH, 771), (mozjs_anon_sym_SLASH, 771),
     (mozjs_anon_sym_PERCENT, 775), (mozjs_anon_sym_STAR_STAR, 775),
     (mozjs_anon_sym_LT_EQ, 775), (mozjs_anon_sym_EQ_EQ, 773),
     (mozjs_anon_sym_EQ_EQ_EQ, 775), (mozjs_anon_sym_BANG_EQ, 773),
     (mozjs_anon_sym_BANG_EQ_EQ, 775), (mozjs_anon_sym_GT_EQ, 775),
     (mozjs_anon_sym_QMARK_QMARK, 775), (mozjs_anon_sym_instanceof, 773),
     (mozjs_anon_sym_BANG, 771), (mozjs_anon_sym_TILDE, 769),
     (mozjs_anon_sym_typeof, 771), (mozjs_anon_sym_void, 771),
     (mozjs_anon_sym_delete, 771), (mozjs_anon_sym_PLUS_PLUS, 769),
     (mozjs_anon_sym_DASH_DASH, 769), (mozjs_sym_comment, 5),
     (mozjs_anon_sym_BQUOTE, 769), (mozjs_sym_number, 769),
     (mozjs_sym_private_property_identifier, 771), (mozjs_sym_this, 771),
     (mozjs_sym_super, 771), (mozjs_sym_true, 771),
     (mozjs_sym_false, 771), (mozjs_sym_null, 771),
     (mozjs_sym_undefined, 771), (mozjs_anon_sym_AT, 769),
     (mozjs_anon_sym_static, 771), (mozjs_anon_sym_get, 771),
     (mozjs_anon_sym_set, 771), (mozjs_sym_preproc, 769),
     (mozjs_sym__automatic_semicolon, 777), (mozjs_sym__ternary_qmark, 775),
     (mozjs_sym_html_comment, 5)]"

definition mozjs_parse_row_98 :: "(TSSymbol \<times> nat) list" where
  "mozjs_parse_row_98 =
    [(ts_builtin_sym_end, 779), (mozjs_sym_identifier, 781),
     (mozjs_anon_sym_export, 781), (mozjs_anon_sym_STAR, 783),
     (mozjs_anon_sym_default, 781), (mozjs_anon_sym_LBRACE, 779),
     (mozjs_anon_sym_COMMA, 785), (mozjs_anon_sym_RBRACE, 779),
     (mozjs_anon_sym_import, 781), (mozjs_anon_sym_with, 781),
     (mozjs_anon_sym_var, 781), (mozjs_anon_sym_let, 781),
     (mozjs_anon_sym_const, 781), (mozjs_anon_sym_using, 781),
     (mozjs_anon_sym_await, 781), (mozjs_anon_sym_else, 781),
     (mozjs_anon_sym_if, 781), (mozjs_anon_sym_switch, 781),
     (mozjs_anon_sym_for, 781), (mozjs_anon_sym_LPAREN, 779),
     (mozjs_anon_sym_SEMI, 779), (mozjs_anon_sym_in, 783),
     (mozjs_anon_sym_while, 781), (mozjs_anon_sym_do, 781),
     (mozjs_anon_sym_try, 781), (mozjs_anon_sym_break, 781),
     (mozjs_anon_sym_continue, 781), (mozjs_anon_sym_debugger, 781),
     (mozjs_anon_sym_return, 781), (mozjs_anon_sym_throw, 781),
     (mozjs_anon_sym_case, 781), (mozjs_anon_sym_yield, 781),
     (mozjs_anon_sym_LBRACK, 779), (mozjs_anon_sym_LT, 781),
     (mozjs_anon_sym_GT, 783), (mozjs_anon_sym_DOT, 783),
     (mozjs_anon_sym_DQUOTE, 779), (mozjs_anon_sym_SQUOTE, 779),
     (mozjs_anon_sym_class, 781), (mozjs_anon_sym_async, 781),
     (mozjs_anon_sym_function, 781), (mozjs_sym_optional_chain, 785),
     (mozjs_anon_sym_new, 781), (mozjs_anon_sym_AMP_AMP, 785),
     (mozjs_anon_sym_PIPE_PIPE, 785), (mozjs_anon_sym_GT_GT, 783),
     (mozjs_anon_sym_GT_GT_GT, 785), (mozjs_anon_sym_LT_LT, 785),
     (mozjs_anon_sym_AMP, 783), (mozjs_anon_sym_CARET, 785),
     (mozjs_anon_sym_PIPE, 783), (mozjs_anon_sym_PLUS, 781),
     (mozjs_anon_sym_DASH, 781), (mozjs_anon_sym_SLASH, 781),
     (mozjs_anon_sym_PERCENT, 785), (mozjs_anon_sym_STAR_STAR, 785),
     (mozjs_anon_sym_LT_EQ, 785), (mozjs_anon_sym_EQ_EQ, 783),
     (mozjs_anon_sym_EQ_EQ_EQ, 785), (mozjs_anon_sym_BANG_EQ, 783),
     (mozjs_anon_sym_BANG_EQ_EQ, 785), (mozjs_anon_sym_GT_EQ, 785),
     (mozjs_anon_sym_QMARK_QMARK, 785), (mozjs_anon_sym_instanceof, 783),
     (mozjs_anon_sym_BANG, 781), (mozjs_anon_sym_TILDE, 779),
     (mozjs_anon_sym_typeof, 781), (mozjs_anon_sym_void, 781),
     (mozjs_anon_sym_delete, 781), (mozjs_anon_sym_PLUS_PLUS, 779),
     (mozjs_anon_sym_DASH_DASH, 779), (mozjs_sym_comment, 5),
     (mozjs_anon_sym_BQUOTE, 779), (mozjs_sym_number, 779),
     (mozjs_sym_private_property_identifier, 781), (mozjs_sym_this, 781),
     (mozjs_sym_super, 781), (mozjs_sym_true, 781),
     (mozjs_sym_false, 781), (mozjs_sym_null, 781),
     (mozjs_sym_undefined, 781), (mozjs_anon_sym_AT, 779),
     (mozjs_anon_sym_static, 781), (mozjs_anon_sym_get, 781),
     (mozjs_anon_sym_set, 781), (mozjs_sym_preproc, 779),
     (mozjs_sym__automatic_semicolon, 787), (mozjs_sym__ternary_qmark, 785),
     (mozjs_sym_html_comment, 5)]"

definition mozjs_parse_row_99 :: "(TSSymbol \<times> nat) list" where
  "mozjs_parse_row_99 =
    [(ts_builtin_sym_end, 789), (mozjs_sym_identifier, 791),
     (mozjs_anon_sym_export, 791), (mozjs_anon_sym_STAR, 793),
     (mozjs_anon_sym_default, 791), (mozjs_anon_sym_LBRACE, 789),
     (mozjs_anon_sym_COMMA, 795), (mozjs_anon_sym_RBRACE, 789),
     (mozjs_anon_sym_import, 791), (mozjs_anon_sym_with, 791),
     (mozjs_anon_sym_var, 791), (mozjs_anon_sym_let, 791),
     (mozjs_anon_sym_const, 791), (mozjs_anon_sym_using, 791),
     (mozjs_anon_sym_await, 791), (mozjs_anon_sym_else, 791),
     (mozjs_anon_sym_if, 791), (mozjs_anon_sym_switch, 791),
     (mozjs_anon_sym_for, 791), (mozjs_anon_sym_LPAREN, 789),
     (mozjs_anon_sym_SEMI, 789), (mozjs_anon_sym_in, 793),
     (mozjs_anon_sym_while, 791), (mozjs_anon_sym_do, 791),
     (mozjs_anon_sym_try, 791), (mozjs_anon_sym_break, 791),
     (mozjs_anon_sym_continue, 791), (mozjs_anon_sym_debugger, 791),
     (mozjs_anon_sym_return, 791), (mozjs_anon_sym_throw, 791),
     (mozjs_anon_sym_case, 791), (mozjs_anon_sym_yield, 791),
     (mozjs_anon_sym_LBRACK, 789), (mozjs_anon_sym_LT, 791),
     (mozjs_anon_sym_GT, 793), (mozjs_anon_sym_DOT, 793),
     (mozjs_anon_sym_DQUOTE, 789), (mozjs_anon_sym_SQUOTE, 789),
     (mozjs_anon_sym_class, 791), (mozjs_anon_sym_async, 791),
     (mozjs_anon_sym_function, 791), (mozjs_sym_optional_chain, 795),
     (mozjs_anon_sym_new, 791), (mozjs_anon_sym_AMP_AMP, 795),
     (mozjs_anon_sym_PIPE_PIPE, 795), (mozjs_anon_sym_GT_GT, 793),
     (mozjs_anon_sym_GT_GT_GT, 795), (mozjs_anon_sym_LT_LT, 795),
     (mozjs_anon_sym_AMP, 793), (mozjs_anon_sym_CARET, 795),
     (mozjs_anon_sym_PIPE, 793), (mozjs_anon_sym_PLUS, 791),
     (mozjs_anon_sym_DASH, 791), (mozjs_anon_sym_SLASH, 791),
     (mozjs_anon_sym_PERCENT, 795), (mozjs_anon_sym_STAR_STAR, 795),
     (mozjs_anon_sym_LT_EQ, 795), (mozjs_anon_sym_EQ_EQ, 793),
     (mozjs_anon_sym_EQ_EQ_EQ, 795), (mozjs_anon_sym_BANG_EQ, 793),
     (mozjs_anon_sym_BANG_EQ_EQ, 795), (mozjs_anon_sym_GT_EQ, 795),
     (mozjs_anon_sym_QMARK_QMARK, 795), (mozjs_anon_sym_instanceof, 793),
     (mozjs_anon_sym_BANG, 791), (mozjs_anon_sym_TILDE, 789),
     (mozjs_anon_sym_typeof, 791), (mozjs_anon_sym_void, 791),
     (mozjs_anon_sym_delete, 791), (mozjs_anon_sym_PLUS_PLUS, 789),
     (mozjs_anon_sym_DASH_DASH, 789), (mozjs_sym_comment, 5),
     (mozjs_anon_sym_BQUOTE, 789), (mozjs_sym_number, 789),
     (mozjs_sym_private_property_identifier, 791), (mozjs_sym_this, 791),
     (mozjs_sym_super, 791), (mozjs_sym_true, 791),
     (mozjs_sym_false, 791), (mozjs_sym_null, 791),
     (mozjs_sym_undefined, 791), (mozjs_anon_sym_AT, 789),
     (mozjs_anon_sym_static, 791), (mozjs_anon_sym_get, 791),
     (mozjs_anon_sym_set, 791), (mozjs_sym_preproc, 789),
     (mozjs_sym__automatic_semicolon, 797), (mozjs_sym__ternary_qmark, 795),
     (mozjs_sym_html_comment, 5)]"

definition mozjs_parse_row_100 :: "(TSSymbol \<times> nat) list" where
  "mozjs_parse_row_100 =
    [(ts_builtin_sym_end, 799), (mozjs_sym_identifier, 801),
     (mozjs_anon_sym_export, 801), (mozjs_anon_sym_STAR, 803),
     (mozjs_anon_sym_default, 801), (mozjs_anon_sym_LBRACE, 799),
     (mozjs_anon_sym_COMMA, 805), (mozjs_anon_sym_RBRACE, 799),
     (mozjs_anon_sym_import, 801), (mozjs_anon_sym_with, 801),
     (mozjs_anon_sym_var, 801), (mozjs_anon_sym_let, 801),
     (mozjs_anon_sym_const, 801), (mozjs_anon_sym_using, 801),
     (mozjs_anon_sym_await, 801), (mozjs_anon_sym_else, 801),
     (mozjs_anon_sym_if, 801), (mozjs_anon_sym_switch, 801),
     (mozjs_anon_sym_for, 801), (mozjs_anon_sym_LPAREN, 799),
     (mozjs_anon_sym_SEMI, 799), (mozjs_anon_sym_in, 803),
     (mozjs_anon_sym_while, 801), (mozjs_anon_sym_do, 801),
     (mozjs_anon_sym_try, 801), (mozjs_anon_sym_break, 801),
     (mozjs_anon_sym_continue, 801), (mozjs_anon_sym_debugger, 801),
     (mozjs_anon_sym_return, 801), (mozjs_anon_sym_throw, 801),
     (mozjs_anon_sym_case, 801), (mozjs_anon_sym_yield, 801),
     (mozjs_anon_sym_LBRACK, 799), (mozjs_anon_sym_LT, 801),
     (mozjs_anon_sym_GT, 803), (mozjs_anon_sym_DOT, 803),
     (mozjs_anon_sym_DQUOTE, 799), (mozjs_anon_sym_SQUOTE, 799),
     (mozjs_anon_sym_class, 801), (mozjs_anon_sym_async, 801),
     (mozjs_anon_sym_function, 801), (mozjs_sym_optional_chain, 805),
     (mozjs_anon_sym_new, 801), (mozjs_anon_sym_AMP_AMP, 805),
     (mozjs_anon_sym_PIPE_PIPE, 805), (mozjs_anon_sym_GT_GT, 803),
     (mozjs_anon_sym_GT_GT_GT, 805), (mozjs_anon_sym_LT_LT, 805),
     (mozjs_anon_sym_AMP, 803), (mozjs_anon_sym_CARET, 805),
     (mozjs_anon_sym_PIPE, 803), (mozjs_anon_sym_PLUS, 801),
     (mozjs_anon_sym_DASH, 801), (mozjs_anon_sym_SLASH, 801),
     (mozjs_anon_sym_PERCENT, 805), (mozjs_anon_sym_STAR_STAR, 805),
     (mozjs_anon_sym_LT_EQ, 805), (mozjs_anon_sym_EQ_EQ, 803),
     (mozjs_anon_sym_EQ_EQ_EQ, 805), (mozjs_anon_sym_BANG_EQ, 803),
     (mozjs_anon_sym_BANG_EQ_EQ, 805), (mozjs_anon_sym_GT_EQ, 805),
     (mozjs_anon_sym_QMARK_QMARK, 805), (mozjs_anon_sym_instanceof, 803),
     (mozjs_anon_sym_BANG, 801), (mozjs_anon_sym_TILDE, 799),
     (mozjs_anon_sym_typeof, 801), (mozjs_anon_sym_void, 801),
     (mozjs_anon_sym_delete, 801), (mozjs_anon_sym_PLUS_PLUS, 799),
     (mozjs_anon_sym_DASH_DASH, 799), (mozjs_sym_comment, 5),
     (mozjs_anon_sym_BQUOTE, 799), (mozjs_sym_number, 799),
     (mozjs_sym_private_property_identifier, 801), (mozjs_sym_this, 801),
     (mozjs_sym_super, 801), (mozjs_sym_true, 801),
     (mozjs_sym_false, 801), (mozjs_sym_null, 801),
     (mozjs_sym_undefined, 801), (mozjs_anon_sym_AT, 799),
     (mozjs_anon_sym_static, 801), (mozjs_anon_sym_get, 801),
     (mozjs_anon_sym_set, 801), (mozjs_sym_preproc, 799),
     (mozjs_sym__automatic_semicolon, 807), (mozjs_sym__ternary_qmark, 805),
     (mozjs_sym_html_comment, 5)]"

definition mozjs_parse_row_101 :: "(TSSymbol \<times> nat) list" where
  "mozjs_parse_row_101 =
    [(mozjs_sym_declaration, 423), (mozjs_sym_import, 1333),
     (mozjs_sym_variable_declaration, 427), (mozjs_sym_lexical_declaration, 427),
     (mozjs_sym_using_declaration, 427), (mozjs_sym_parenthesized_expression, 556),
     (mozjs_sym_expression, 905), (mozjs_sym_primary_expression, 693),
     (mozjs_sym_yield_expression, 743), (mozjs_sym_object, 793),
     (mozjs_sym_object_pattern, 1845), (mozjs_sym_array, 793),
     (mozjs_sym_array_pattern, 1845), (mozjs_sym_jsx_element, 743),
     (mozjs_sym_jsx_opening_element, 1158), (mozjs_sym_jsx_self_closing_element, 743),
     (mozjs_sym_class, 793), (mozjs_sym_class_declaration, 427),
     (mozjs_sym_function_expression, 793), (mozjs_sym_function_declaration, 427),
     (mozjs_sym_generator_function, 793), (mozjs_sym_generator_function_declaration, 427),
     (mozjs_sym_arrow_function, 793), (mozjs_sym_call_expression, 793),
     (mozjs_sym_new_expression, 692), (mozjs_sym_await_expression, 743),
     (mozjs_sym_member_expression, 556), (mozjs_sym_subscript_expression, 556),
     (mozjs_sym_assignment_expression, 743), (mozjs_sym__augmented_assignment_lhs, 1146),
     (mozjs_sym_augmented_assignment_expression, 743), (mozjs_sym__destructuring_pattern, 1845),
     (mozjs_sym_ternary_expression, 743), (mozjs_sym_binary_expression, 743),
     (mozjs_sym_unary_expression, 743), (mozjs_sym_update_expression, 743),
     (mozjs_sym_string, 793), (mozjs_sym_template_string, 793),
     (mozjs_sym_regex, 793), (mozjs_sym_meta_property, 793),
     (mozjs_sym_decorator, 1112), (mozjs_sym_formal_parameters, 1847),
     (mozjs_aux_sym_export_statement_repeat1, 1353), (mozjs_sym_identifier, 303),
     (mozjs_anon_sym_export, 305), (mozjs_anon_sym_LBRACE, 309),
     (mozjs_anon_sym_import, 315), (mozjs_anon_sym_var, 21),
     (mozjs_anon_sym_let, 809), (mozjs_anon_sym_const, 25),
     (mozjs_anon_sym_using, 27), (mozjs_anon_sym_await, 811),
     (mozjs_anon_sym_LPAREN, 37), (mozjs_anon_sym_yield, 57),
     (mozjs_anon_sym_LBRACK, 59), (mozjs_anon_sym_LT, 61),
     (mozjs_anon_sym_DQUOTE, 63), (mozjs_anon_sym_SQUOTE, 65),
     (mozjs_anon_sym_class, 67), (mozjs_anon_sym_async, 813),
     (mozjs_anon_sym_function, 71), (mozjs_anon_sym_new, 73),
     (mozjs_anon_sym_PLUS, 75), (mozjs_anon_sym_DASH, 75),
     (mozjs_anon_sym_SLASH, 77), (mozjs_anon_sym_BANG, 79),
     (mozjs_anon_sym_TILDE, 79), (mozjs_anon_sym_typeof, 75),
     (mozjs_anon_sym_void, 75), (mozjs_anon_sym_delete, 75),
     (mozjs_anon_sym_PLUS_PLUS, 81), (mozjs_anon_sym_DASH_DASH, 81),
     (mozjs_sym_comment, 5), (mozjs_anon_sym_BQUOTE, 83),
     (mozjs_sym_number, 85), (mozjs_sym_private_property_identifier, 358),
     (mozjs_sym_this, 89), (mozjs_sym_super, 89),
     (mozjs_sym_true, 89), (mozjs_sym_false, 89),
     (mozjs_sym_null, 89), (mozjs_sym_undefined, 91),
     (mozjs_anon_sym_AT, 93), (mozjs_anon_sym_static, 305),
     (mozjs_anon_sym_get, 305), (mozjs_anon_sym_set, 305),
     (mozjs_sym_html_comment, 5)]"

definition mozjs_parse_row_102 :: "(TSSymbol \<times> nat) list" where
  "mozjs_parse_row_102 =
    [(mozjs_sym_declaration, 420), (mozjs_sym_import, 1333),
     (mozjs_sym_variable_declaration, 427), (mozjs_sym_lexical_declaration, 427),
     (mozjs_sym_using_declaration, 427), (mozjs_sym_parenthesized_expression, 556),
     (mozjs_sym_expression, 908), (mozjs_sym_primary_expression, 693),
     (mozjs_sym_yield_expression, 743), (mozjs_sym_object, 793),
     (mozjs_sym_object_pattern, 1845), (mozjs_sym_array, 793),
     (mozjs_sym_array_pattern, 1845), (mozjs_sym_jsx_element, 743),
     (mozjs_sym_jsx_opening_element, 1158), (mozjs_sym_jsx_self_closing_element, 743),
     (mozjs_sym_class, 793), (mozjs_sym_class_declaration, 427),
     (mozjs_sym_function_expression, 793), (mozjs_sym_function_declaration, 427),
     (mozjs_sym_generator_function, 793), (mozjs_sym_generator_function_declaration, 427),
     (mozjs_sym_arrow_function, 793), (mozjs_sym_call_expression, 793),
     (mozjs_sym_new_expression, 692), (mozjs_sym_await_expression, 743),
     (mozjs_sym_member_expression, 556), (mozjs_sym_subscript_expression, 556),
     (mozjs_sym_assignment_expression, 743), (mozjs_sym__augmented_assignment_lhs, 1146),
     (mozjs_sym_augmented_assignment_expression, 743), (mozjs_sym__destructuring_pattern, 1845),
     (mozjs_sym_ternary_expression, 743), (mozjs_sym_binary_expression, 743),
     (mozjs_sym_unary_expression, 743), (mozjs_sym_update_expression, 743),
     (mozjs_sym_string, 793), (mozjs_sym_template_string, 793),
     (mozjs_sym_regex, 793), (mozjs_sym_meta_property, 793),
     (mozjs_sym_decorator, 1112), (mozjs_sym_formal_parameters, 1847),
     (mozjs_aux_sym_export_statement_repeat1, 1326), (mozjs_sym_identifier, 303),
     (mozjs_anon_sym_export, 305), (mozjs_anon_sym_LBRACE, 309),
     (mozjs_anon_sym_import, 315), (mozjs_anon_sym_var, 21),
     (mozjs_anon_sym_let, 809), (mozjs_anon_sym_const, 25),
     (mozjs_anon_sym_using, 27), (mozjs_anon_sym_await, 811),
     (mozjs_anon_sym_LPAREN, 37), (mozjs_anon_sym_yield, 57),
     (mozjs_anon_sym_LBRACK, 59), (mozjs_anon_sym_LT, 61),
     (mozjs_anon_sym_DQUOTE, 63), (mozjs_anon_sym_SQUOTE, 65),
     (mozjs_anon_sym_class, 521), (mozjs_anon_sym_async, 815),
     (mozjs_anon_sym_function, 525), (mozjs_anon_sym_new, 73),
     (mozjs_anon_sym_PLUS, 75), (mozjs_anon_sym_DASH, 75),
     (mozjs_anon_sym_SLASH, 77), (mozjs_anon_sym_BANG, 79),
     (mozjs_anon_sym_TILDE, 79), (mozjs_anon_sym_typeof, 75),
     (mozjs_anon_sym_void, 75), (mozjs_anon_sym_delete, 75),
     (mozjs_anon_sym_PLUS_PLUS, 81), (mozjs_anon_sym_DASH_DASH, 81),
     (mozjs_sym_comment, 5), (mozjs_anon_sym_BQUOTE, 83),
     (mozjs_sym_number, 85), (mozjs_sym_private_property_identifier, 358),
     (mozjs_sym_this, 89), (mozjs_sym_super, 89),
     (mozjs_sym_true, 89), (mozjs_sym_false, 89),
     (mozjs_sym_null, 89), (mozjs_sym_undefined, 91),
     (mozjs_anon_sym_AT, 93), (mozjs_anon_sym_static, 305),
     (mozjs_anon_sym_get, 305), (mozjs_anon_sym_set, 305),
     (mozjs_sym_html_comment, 5)]"

definition mozjs_parse_row_103 :: "(TSSymbol \<times> nat) list" where
  "mozjs_parse_row_103 =
    [(mozjs_sym_declaration, 420), (mozjs_sym_import, 1333),
     (mozjs_sym_variable_declaration, 427), (mozjs_sym_lexical_declaration, 427),
     (mozjs_sym_using_declaration, 427), (mozjs_sym_parenthesized_expression, 556),
     (mozjs_sym_expression, 908), (mozjs_sym_primary_expression, 693),
     (mozjs_sym_yield_expression, 743), (mozjs_sym_object, 793),
     (mozjs_sym_object_pattern, 1845), (mozjs_sym_array, 793),
     (mozjs_sym_array_pattern, 1845), (mozjs_sym_jsx_element, 743),
     (mozjs_sym_jsx_opening_element, 1158), (mozjs_sym_jsx_self_closing_element, 743),
     (mozjs_sym_class, 793), (mozjs_sym_class_declaration, 427),
     (mozjs_sym_function_expression, 793), (mozjs_sym_function_declaration, 427),
     (mozjs_sym_generator_function, 793), (mozjs_sym_generator_function_declaration, 427),
     (mozjs_sym_arrow_function, 793), (mozjs_sym_call_expression, 793),
     (mozjs_sym_new_expression, 692), (mozjs_sym_await_expression, 743),
     (mozjs_sym_member_expression, 556), (mozjs_sym_subscript_expression, 556),
     (mozjs_sym_assignment_expression, 743), (mozjs_sym__augmented_assignment_lhs, 1146),
     (mozjs_sym_augmented_assignment_expression, 743), (mozjs_sym__destructuring_pattern, 1845),
     (mozjs_sym_ternary_expression, 743), (mozjs_sym_binary_expression, 743),
     (mozjs_sym_unary_expression, 743), (mozjs_sym_update_expression, 743),
     (mozjs_sym_string, 793), (mozjs_sym_template_string, 793),
     (mozjs_sym_regex, 793), (mozjs_sym_meta_property, 793),
     (mozjs_sym_decorator, 1112), (mozjs_sym_formal_parameters, 1847),
     (mozjs_aux_sym_export_statement_repeat1, 1353), (mozjs_sym_identifier, 303),
     (mozjs_anon_sym_export, 305), (mozjs_anon_sym_LBRACE, 309),
     (mozjs_anon_sym_import, 315), (mozjs_anon_sym_var, 21),
     (mozjs_anon_sym_let, 809), (mozjs_anon_sym_const, 25),
     (mozjs_anon_sym_using, 27), (mozjs_anon_sym_await, 811),
     (mozjs_anon_sym_LPAREN, 37), (mozjs_anon_sym_yield, 57),
     (mozjs_anon_sym_LBRACK, 59), (mozjs_anon_sym_LT, 61),
     (mozjs_anon_sym_DQUOTE, 63), (mozjs_anon_sym_SQUOTE, 65),
     (mozjs_anon_sym_class, 67), (mozjs_anon_sym_async, 813),
     (mozjs_anon_sym_function, 71), (mozjs_anon_sym_new, 73),
     (mozjs_anon_sym_PLUS, 75), (mozjs_anon_sym_DASH, 75),
     (mozjs_anon_sym_SLASH, 77), (mozjs_anon_sym_BANG, 79),
     (mozjs_anon_sym_TILDE, 79), (mozjs_anon_sym_typeof, 75),
     (mozjs_anon_sym_void, 75), (mozjs_anon_sym_delete, 75),
     (mozjs_anon_sym_PLUS_PLUS, 81), (mozjs_anon_sym_DASH_DASH, 81),
     (mozjs_sym_comment, 5), (mozjs_anon_sym_BQUOTE, 83),
     (mozjs_sym_number, 85), (mozjs_sym_private_property_identifier, 358),
     (mozjs_sym_this, 89), (mozjs_sym_super, 89),
     (mozjs_sym_true, 89), (mozjs_sym_false, 89),
     (mozjs_sym_null, 89), (mozjs_sym_undefined, 91),
     (mozjs_anon_sym_AT, 93), (mozjs_anon_sym_static, 305),
     (mozjs_anon_sym_get, 305), (mozjs_anon_sym_set, 305),
     (mozjs_sym_html_comment, 5)]"

definition mozjs_parse_row_104 :: "(TSSymbol \<times> nat) list" where
  "mozjs_parse_row_104 =
    [(mozjs_sym_declaration, 423), (mozjs_sym_import, 1333),
     (mozjs_sym_variable_declaration, 427), (mozjs_sym_lexical_declaration, 427),
     (mozjs_sym_using_declaration, 427), (mozjs_sym_parenthesized_expression, 556),
     (mozjs_sym_expression, 905), (mozjs_sym_primary_expression, 693),
     (mozjs_sym_yield_expression, 743), (mozjs_sym_object, 793),
     (mozjs_sym_object_pattern, 1845), (mozjs_sym_array, 793),
     (mozjs_sym_array_pattern, 1845), (mozjs_sym_jsx_element, 743),
     (mozjs_sym_jsx_opening_element, 1158), (mozjs_sym_jsx_self_closing_element, 743),
     (mozjs_sym_class, 793), (mozjs_sym_class_declaration, 427),
     (mozjs_sym_function_expression, 793), (mozjs_sym_function_declaration, 427),
     (mozjs_sym_generator_function, 793), (mozjs_sym_generator_function_declaration, 427),
     (mozjs_sym_arrow_function, 793), (mozjs_sym_call_expression, 793),
     (mozjs_sym_new_expression, 692), (mozjs_sym_await_expression, 743),
     (mozjs_sym_member_expression, 556), (mozjs_sym_subscript_expression, 556),
     (mozjs_sym_assignment_expression, 743), (mozjs_sym__augmented_assignment_lhs, 1146),
     (mozjs_sym_augmented_assignment_expression, 743), (mozjs_sym__destructuring_pattern, 1845),
     (mozjs_sym_ternary_expression, 743), (mozjs_sym_binary_expression, 743),
     (mozjs_sym_unary_expression, 743), (mozjs_sym_update_expression, 743),
     (mozjs_sym_string, 793), (mozjs_sym_template_string, 793),
     (mozjs_sym_regex, 793), (mozjs_sym_meta_property, 793),
     (mozjs_sym_decorator, 1112), (mozjs_sym_formal_parameters, 1847),
     (mozjs_aux_sym_export_statement_repeat1, 1326), (mozjs_sym_identifier, 303),
     (mozjs_anon_sym_export, 305), (mozjs_anon_sym_LBRACE, 309),
     (mozjs_anon_sym_import, 315), (mozjs_anon_sym_var, 21),
     (mozjs_anon_sym_let, 809), (mozjs_anon_sym_const, 25),
     (mozjs_anon_sym_using, 27), (mozjs_anon_sym_await, 811),
     (mozjs_anon_sym_LPAREN, 37), (mozjs_anon_sym_yield, 57),
     (mozjs_anon_sym_LBRACK, 59), (mozjs_anon_sym_LT, 61),
     (mozjs_anon_sym_DQUOTE, 63), (mozjs_anon_sym_SQUOTE, 65),
     (mozjs_anon_sym_class, 521), (mozjs_anon_sym_async, 815),
     (mozjs_anon_sym_function, 525), (mozjs_anon_sym_new, 73),
     (mozjs_anon_sym_PLUS, 75), (mozjs_anon_sym_DASH, 75),
     (mozjs_anon_sym_SLASH, 77), (mozjs_anon_sym_BANG, 79),
     (mozjs_anon_sym_TILDE, 79), (mozjs_anon_sym_typeof, 75),
     (mozjs_anon_sym_void, 75), (mozjs_anon_sym_delete, 75),
     (mozjs_anon_sym_PLUS_PLUS, 81), (mozjs_anon_sym_DASH_DASH, 81),
     (mozjs_sym_comment, 5), (mozjs_anon_sym_BQUOTE, 83),
     (mozjs_sym_number, 85), (mozjs_sym_private_property_identifier, 358),
     (mozjs_sym_this, 89), (mozjs_sym_super, 89),
     (mozjs_sym_true, 89), (mozjs_sym_false, 89),
     (mozjs_sym_null, 89), (mozjs_sym_undefined, 91),
     (mozjs_anon_sym_AT, 93), (mozjs_anon_sym_static, 305),
     (mozjs_anon_sym_get, 305), (mozjs_anon_sym_set, 305),
     (mozjs_sym_html_comment, 5)]"

definition mozjs_parse_row_105 :: "(TSSymbol \<times> nat) list" where
  "mozjs_parse_row_105 =
    [(mozjs_sym_import, 1340), (mozjs_sym_parenthesized_expression, 525),
     (mozjs_sym_expression, 862), (mozjs_sym_primary_expression, 584),
     (mozjs_sym_yield_expression, 638), (mozjs_sym_object, 645),
     (mozjs_sym_object_pattern, 1287), (mozjs_sym_assignment_pattern, 1478),
     (mozjs_sym_array, 645), (mozjs_sym_array_pattern, 1287),
     (mozjs_sym_jsx_element, 638), (mozjs_sym_jsx_opening_element, 1152),
     (mozjs_sym_jsx_self_closing_element, 638), (mozjs_sym_class, 645),
     (mozjs_sym_function_expression, 645), (mozjs_sym_generator_function, 645),
     (mozjs_sym_arrow_function, 645), (mozjs_sym_call_expression, 645),
     (mozjs_sym_new_expression, 587), (mozjs_sym_await_expression, 638),
     (mozjs_sym_member_expression, 555), (mozjs_sym_subscript_expression, 555),
     (mozjs_sym_assignment_expression, 638), (mozjs_sym__augmented_assignment_lhs, 1145),
     (mozjs_sym_augmented_assignment_expression, 638), (mozjs_sym__destructuring_pattern, 1287),
     (mozjs_sym_spread_element, 1413), (mozjs_sym_ternary_expression, 638),
     (mozjs_sym_binary_expression, 638), (mozjs_sym_unary_expression, 638),
     (mozjs_sym_update_expression, 638), (mozjs_sym_string, 645),
     (mozjs_sym_template_string, 645), (mozjs_sym_regex, 645),
     (mozjs_sym_meta_property, 645), (mozjs_sym_decorator, 1112),
     (mozjs_sym_formal_parameters, 1777), (mozjs_sym_pattern, 1354),
     (mozjs_sym_rest_pattern, 1294), (mozjs_aux_sym_export_statement_repeat1, 1395),
     (mozjs_aux_sym_array_repeat1, 1415), (mozjs_aux_sym_array_pattern_repeat1, 1483),
     (mozjs_sym_identifier, 817), (mozjs_anon_sym_export, 819),
     (mozjs_anon_sym_LBRACE, 465), (mozjs_anon_sym_COMMA, 821),
     (mozjs_anon_sym_import, 390), (mozjs_anon_sym_let, 819),
     (mozjs_anon_sym_await, 823), (mozjs_anon_sym_LPAREN, 657),
     (mozjs_anon_sym_yield, 397), (mozjs_anon_sym_LBRACK, 683),
     (mozjs_anon_sym_RBRACK, 825), (mozjs_anon_sym_LT, 827),
     (mozjs_anon_sym_DQUOTE, 407), (mozjs_anon_sym_SQUOTE, 409),
     (mozjs_anon_sym_class, 411), (mozjs_anon_sym_async, 829),
     (mozjs_anon_sym_function, 415), (mozjs_anon_sym_new, 419),
     (mozjs_anon_sym_DOT_DOT_DOT, 117), (mozjs_anon_sym_PLUS, 427),
     (mozjs_anon_sym_DASH, 427), (mozjs_anon_sym_SLASH, 665),
     (mozjs_anon_sym_BANG, 429), (mozjs_anon_sym_TILDE, 429),
     (mozjs_anon_sym_typeof, 427), (mozjs_anon_sym_void, 427),
     (mozjs_anon_sym_delete, 427), (mozjs_anon_sym_PLUS_PLUS, 667),
     (mozjs_anon_sym_DASH_DASH, 667), (mozjs_sym_comment, 5),
     (mozjs_anon_sym_BQUOTE, 669), (mozjs_sym_number, 437),
     (mozjs_sym_private_property_identifier, 439), (mozjs_sym_this, 441),
     (mozjs_sym_super, 441), (mozjs_sym_true, 441),
     (mozjs_sym_false, 441), (mozjs_sym_null, 441),
     (mozjs_sym_undefined, 831), (mozjs_anon_sym_AT, 93),
     (mozjs_anon_sym_static, 819), (mozjs_anon_sym_get, 819),
     (mozjs_anon_sym_set, 819), (mozjs_sym_html_comment, 5)]"

definition mozjs_parse_row_106 :: "(TSSymbol \<times> nat) list" where
  "mozjs_parse_row_106 =
    [(mozjs_sym_import, 1340), (mozjs_sym_parenthesized_expression, 525),
     (mozjs_sym_expression, 874), (mozjs_sym_primary_expression, 584),
     (mozjs_sym_yield_expression, 638), (mozjs_sym_object, 645),
     (mozjs_sym_object_pattern, 1287), (mozjs_sym_assignment_pattern, 1478),
     (mozjs_sym_array, 645), (mozjs_sym_array_pattern, 1287),
     (mozjs_sym_jsx_element, 638), (mozjs_sym_jsx_opening_element, 1152),
     (mozjs_sym_jsx_self_closing_element, 638), (mozjs_sym_class, 645),
     (mozjs_sym_function_expression, 645), (mozjs_sym_generator_function, 645),
     (mozjs_sym_arrow_function, 645), (mozjs_sym_call_expression, 645),
     (mozjs_sym_new_expression, 587), (mozjs_sym_await_expression, 638),
     (mozjs_sym_member_expression, 555), (mozjs_sym_subscript_expression, 555),
     (mozjs_sym_assignment_expression, 638), (mozjs_sym__augmented_assignment_lhs, 1145),
     (mozjs_sym_augmented_assignment_expression, 638), (mozjs_sym__destructuring_pattern, 1287),
     (mozjs_sym_spread_element, 1480), (mozjs_sym_ternary_expression, 638),
     (mozjs_sym_binary_expression, 638), (mozjs_sym_unary_expression, 638),
     (mozjs_sym_update_expression, 638), (mozjs_sym_string, 645),
     (mozjs_sym_template_string, 645), (mozjs_sym_regex, 645),
     (mozjs_sym_meta_property, 645), (mozjs_sym_decorator, 1112),
     (mozjs_sym_formal_parameters, 1777), (mozjs_sym_pattern, 1354),
     (mozjs_sym_rest_pattern, 1294), (mozjs_aux_sym_export_statement_repeat1, 1395),
     (mozjs_aux_sym_array_repeat1, 1482), (mozjs_aux_sym_array_pattern_repeat1, 1483),
     (mozjs_sym_identifier, 817), (mozjs_anon_sym_export, 819),
     (mozjs_anon_sym_LBRACE, 465), (mozjs_anon_sym_COMMA, 821),
     (mozjs_anon_sym_import, 390), (mozjs_anon_sym_let, 819),
     (mozjs_anon_sym_await, 823), (mozjs_anon_sym_LPAREN, 657),
     (mozjs_anon_sym_yield, 397), (mozjs_anon_sym_LBRACK, 683),
     (mozjs_anon_sym_RBRACK, 833), (mozjs_anon_sym_LT, 827),
     (mozjs_anon_sym_DQUOTE, 407), (mozjs_anon_sym_SQUOTE, 409),
     (mozjs_anon_sym_class, 411), (mozjs_anon_sym_async, 829),
     (mozjs_anon_sym_function, 415), (mozjs_anon_sym_new, 419),
     (mozjs_anon_sym_DOT_DOT_DOT, 117), (mozjs_anon_sym_PLUS, 427),
     (mozjs_anon_sym_DASH, 427), (mozjs_anon_sym_SLASH, 665),
     (mozjs_anon_sym_BANG, 429), (mozjs_anon_sym_TILDE, 429),
     (mozjs_anon_sym_typeof, 427), (mozjs_anon_sym_void, 427),
     (mozjs_anon_sym_delete, 427), (mozjs_anon_sym_PLUS_PLUS, 667),
     (mozjs_anon_sym_DASH_DASH, 667), (mozjs_sym_comment, 5),
     (mozjs_anon_sym_BQUOTE, 669), (mozjs_sym_number, 437),
     (mozjs_sym_private_property_identifier, 439), (mozjs_sym_this, 441),
     (mozjs_sym_super, 441), (mozjs_sym_true, 441),
     (mozjs_sym_false, 441), (mozjs_sym_null, 441),
     (mozjs_sym_undefined, 831), (mozjs_anon_sym_AT, 93),
     (mozjs_anon_sym_static, 819), (mozjs_anon_sym_get, 819),
     (mozjs_anon_sym_set, 819), (mozjs_sym_html_comment, 5)]"

definition mozjs_parse_row_107 :: "(TSSymbol \<times> nat) list" where
  "mozjs_parse_row_107 =
    [(mozjs_sym_import, 1340), (mozjs_sym_parenthesized_expression, 525),
     (mozjs_sym_expression, 862), (mozjs_sym_primary_expression, 584),
     (mozjs_sym_yield_expression, 638), (mozjs_sym_object, 645),
     (mozjs_sym_object_pattern, 1287), (mozjs_sym_assignment_pattern, 1478),
     (mozjs_sym_array, 645), (mozjs_sym_array_pattern, 1287),
     (mozjs_sym_jsx_element, 638), (mozjs_sym_jsx_opening_element, 1152),
     (mozjs_sym_jsx_self_closing_element, 638), (mozjs_sym_class, 645),
     (mozjs_sym_function_expression, 645), (mozjs_sym_generator_function, 645),
     (mozjs_sym_arrow_function, 645), (mozjs_sym_call_expression, 645),
     (mozjs_sym_new_expression, 587), (mozjs_sym_await_expression, 638),
     (mozjs_sym_member_expression, 555), (mozjs_sym_subscript_expression, 555),
     (mozjs_sym_assignment_expression, 638), (mozjs_sym__augmented_assignment_lhs, 1145),
     (mozjs_sym_augmented_assignment_expression, 638), (mozjs_sym__destructuring_pattern, 1287),
     (mozjs_sym_spread_element, 1413), (mozjs_sym_ternary_expression, 638),
     (mozjs_sym_binary_expression, 638), (mozjs_sym_unary_expression, 638),
     (mozjs_sym_update_expression, 638), (mozjs_sym_string, 645),
     (mozjs_sym_template_string, 645), (mozjs_sym_regex, 645),
     (mozjs_sym_meta_property, 645), (mozjs_sym_decorator, 1112),
     (mozjs_sym_formal_parameters, 1777), (mozjs_sym_pattern, 1354),
     (mozjs_sym_rest_pattern, 1294), (mozjs_aux_sym_export_statement_repeat1, 1395),
     (mozjs_aux_sym_array_repeat1, 1415), (mozjs_aux_sym_array_pattern_repeat1, 1483),
     (mozjs_sym_identifier, 817), (mozjs_anon_sym_export, 819),
     (mozjs_anon_sym_LBRACE, 465), (mozjs_anon_sym_COMMA, 821),
     (mozjs_anon_sym_import, 390), (mozjs_anon_sym_let, 819),
     (mozjs_anon_sym_await, 823), (mozjs_anon_sym_LPAREN, 657),
     (mozjs_anon_sym_yield, 397), (mozjs_anon_sym_LBRACK, 683),
     (mozjs_anon_sym_RBRACK, 835), (mozjs_anon_sym_LT, 827),
     (mozjs_anon_sym_DQUOTE, 407), (mozjs_anon_sym_SQUOTE, 409),
     (mozjs_anon_sym_class, 411), (mozjs_anon_sym_async, 829),
     (mozjs_anon_sym_function, 415), (mozjs_anon_sym_new, 419),
     (mozjs_anon_sym_DOT_DOT_DOT, 117), (mozjs_anon_sym_PLUS, 427),
     (mozjs_anon_sym_DASH, 427), (mozjs_anon_sym_SLASH, 665),
     (mozjs_anon_sym_BANG, 429), (mozjs_anon_sym_TILDE, 429),
     (mozjs_anon_sym_typeof, 427), (mozjs_anon_sym_void, 427),
     (mozjs_anon_sym_delete, 427), (mozjs_anon_sym_PLUS_PLUS, 667),
     (mozjs_anon_sym_DASH_DASH, 667), (mozjs_sym_comment, 5),
     (mozjs_anon_sym_BQUOTE, 669), (mozjs_sym_number, 437),
     (mozjs_sym_private_property_identifier, 439), (mozjs_sym_this, 441),
     (mozjs_sym_super, 441), (mozjs_sym_true, 441),
     (mozjs_sym_false, 441), (mozjs_sym_null, 441),
     (mozjs_sym_undefined, 831), (mozjs_anon_sym_AT, 93),
     (mozjs_anon_sym_static, 819), (mozjs_anon_sym_get, 819),
     (mozjs_anon_sym_set, 819), (mozjs_sym_html_comment, 5)]"

definition mozjs_parse_row_108 :: "(TSSymbol \<times> nat) list" where
  "mozjs_parse_row_108 =
    [(mozjs_sym_import, 1340), (mozjs_sym_parenthesized_expression, 525),
     (mozjs_sym_expression, 845), (mozjs_sym_primary_expression, 584),
     (mozjs_sym_yield_expression, 638), (mozjs_sym_object, 645),
     (mozjs_sym_object_pattern, 1287), (mozjs_sym_assignment_pattern, 1478),
     (mozjs_sym_array, 645), (mozjs_sym_array_pattern, 1287),
     (mozjs_sym_jsx_element, 638), (mozjs_sym_jsx_opening_element, 1152),
     (mozjs_sym_jsx_self_closing_element, 638), (mozjs_sym_class, 645),
     (mozjs_sym_function_expression, 645), (mozjs_sym_generator_function, 645),
     (mozjs_sym_arrow_function, 645), (mozjs_sym_call_expression, 645),
     (mozjs_sym_new_expression, 587), (mozjs_sym_await_expression, 638),
     (mozjs_sym_member_expression, 555), (mozjs_sym_subscript_expression, 555),
     (mozjs_sym_assignment_expression, 638), (mozjs_sym__augmented_assignment_lhs, 1145),
     (mozjs_sym_augmented_assignment_expression, 638), (mozjs_sym__destructuring_pattern, 1287),
     (mozjs_sym_spread_element, 1480), (mozjs_sym_ternary_expression, 638),
     (mozjs_sym_binary_expression, 638), (mozjs_sym_unary_expression, 638),
     (mozjs_sym_update_expression, 638), (mozjs_sym_string, 645),
     (mozjs_sym_template_string, 645), (mozjs_sym_regex, 645),
     (mozjs_sym_meta_property, 645), (mozjs_sym_decorator, 1112),
     (mozjs_sym_formal_parameters, 1777), (mozjs_sym_pattern, 1354),
     (mozjs_sym_rest_pattern, 1294), (mozjs_aux_sym_export_statement_repeat1, 1395),
     (mozjs_aux_sym_array_repeat1, 1482), (mozjs_aux_sym_array_pattern_repeat1, 1483),
     (mozjs_sym_identifier, 817), (mozjs_anon_sym_export, 819),
     (mozjs_anon_sym_LBRACE, 465), (mozjs_anon_sym_COMMA, 821),
     (mozjs_anon_sym_import, 390), (mozjs_anon_sym_let, 819),
     (mozjs_anon_sym_await, 823), (mozjs_anon_sym_LPAREN, 657),
     (mozjs_anon_sym_yield, 397), (mozjs_anon_sym_LBRACK, 683),
     (mozjs_anon_sym_RBRACK, 833), (mozjs_anon_sym_LT, 827),
     (mozjs_anon_sym_DQUOTE, 407), (mozjs_anon_sym_SQUOTE, 409),
     (mozjs_anon_sym_class, 411), (mozjs_anon_sym_async, 829),
     (mozjs_anon_sym_function, 415), (mozjs_anon_sym_new, 419),
     (mozjs_anon_sym_DOT_DOT_DOT, 117), (mozjs_anon_sym_PLUS, 427),
     (mozjs_anon_sym_DASH, 427), (mozjs_anon_sym_SLASH, 665),
     (mozjs_anon_sym_BANG, 429), (mozjs_anon_sym_TILDE, 429),
     (mozjs_anon_sym_typeof, 427), (mozjs_anon_sym_void, 427),
     (mozjs_anon_sym_delete, 427), (mozjs_anon_sym_PLUS_PLUS, 667),
     (mozjs_anon_sym_DASH_DASH, 667), (mozjs_sym_comment, 5),
     (mozjs_anon_sym_BQUOTE, 669), (mozjs_sym_number, 437),
     (mozjs_sym_private_property_identifier, 439), (mozjs_sym_this, 441),
     (mozjs_sym_super, 441), (mozjs_sym_true, 441),
     (mozjs_sym_false, 441), (mozjs_sym_null, 441),
     (mozjs_sym_undefined, 831), (mozjs_anon_sym_AT, 93),
     (mozjs_anon_sym_static, 819), (mozjs_anon_sym_get, 819),
     (mozjs_anon_sym_set, 819), (mozjs_sym_html_comment, 5)]"

definition mozjs_parse_row_109 :: "(TSSymbol \<times> nat) list" where
  "mozjs_parse_row_109 =
    [(mozjs_sym_import, 1340), (mozjs_sym_parenthesized_expression, 525),
     (mozjs_sym_expression, 862), (mozjs_sym_primary_expression, 584),
     (mozjs_sym_yield_expression, 638), (mozjs_sym_object, 645),
     (mozjs_sym_object_pattern, 1287), (mozjs_sym_assignment_pattern, 1478),
     (mozjs_sym_array, 645), (mozjs_sym_array_pattern, 1287),
     (mozjs_sym_jsx_element, 638), (mozjs_sym_jsx_opening_element, 1152),
     (mozjs_sym_jsx_self_closing_element, 638), (mozjs_sym_class, 645),
     (mozjs_sym_function_expression, 645), (mozjs_sym_generator_function, 645),
     (mozjs_sym_arrow_function, 645), (mozjs_sym_call_expression, 645),
     (mozjs_sym_new_expression, 587), (mozjs_sym_await_expression, 638),
     (mozjs_sym_member_expression, 555), (mozjs_sym_subscript_expression, 555),
     (mozjs_sym_assignment_expression, 638), (mozjs_sym__augmented_assignment_lhs, 1145),
     (mozjs_sym_augmented_assignment_expression, 638), (mozjs_sym__destructuring_pattern, 1287),
     (mozjs_sym_spread_element, 1413), (mozjs_sym_ternary_expression, 638),
     (mozjs_sym_binary_expression, 638), (mozjs_sym_unary_expression, 638),
     (mozjs_sym_update_expression, 638), (mozjs_sym_string, 645),
     (mozjs_sym_template_string, 645), (mozjs_sym_regex, 645),
     (mozjs_sym_meta_property, 645), (mozjs_sym_decorator, 1112),
     (mozjs_sym_formal_parameters, 1777), (mozjs_sym_pattern, 1354),
     (mozjs_sym_rest_pattern, 1294), (mozjs_aux_sym_export_statement_repeat1, 1395),
     (mozjs_aux_sym_array_repeat1, 1415), (mozjs_aux_sym_array_pattern_repeat1, 1483),
     (mozjs_sym_identifier, 817), (mozjs_anon_sym_export, 819),
     (mozjs_anon_sym_LBRACE, 465), (mozjs_anon_sym_COMMA, 821),
     (mozjs_anon_sym_import, 390), (mozjs_anon_sym_let, 819),
     (mozjs_anon_sym_await, 823), (mozjs_anon_sym_LPAREN, 657),
     (mozjs_anon_sym_yield, 397), (mozjs_anon_sym_LBRACK, 683),
     (mozjs_anon_sym_RBRACK, 837), (mozjs_anon_sym_LT, 827),
     (mozjs_anon_sym_DQUOTE, 407), (mozjs_anon_sym_SQUOTE, 409),
     (mozjs_anon_sym_class, 411), (mozjs_anon_sym_async, 829),
     (mozjs_anon_sym_function, 415), (mozjs_anon_sym_new, 419),
     (mozjs_anon_sym_DOT_DOT_DOT, 117), (mozjs_anon_sym_PLUS, 427),
     (mozjs_anon_sym_DASH, 427), (mozjs_anon_sym_SLASH, 665),
     (mozjs_anon_sym_BANG, 429), (mozjs_anon_sym_TILDE, 429),
     (mozjs_anon_sym_typeof, 427), (mozjs_anon_sym_void, 427),
     (mozjs_anon_sym_delete, 427), (mozjs_anon_sym_PLUS_PLUS, 667),
     (mozjs_anon_sym_DASH_DASH, 667), (mozjs_sym_comment, 5),
     (mozjs_anon_sym_BQUOTE, 669), (mozjs_sym_number, 437),
     (mozjs_sym_private_property_identifier, 439), (mozjs_sym_this, 441),
     (mozjs_sym_super, 441), (mozjs_sym_true, 441),
     (mozjs_sym_false, 441), (mozjs_sym_null, 441),
     (mozjs_sym_undefined, 831), (mozjs_anon_sym_AT, 93),
     (mozjs_anon_sym_static, 819), (mozjs_anon_sym_get, 819),
     (mozjs_anon_sym_set, 819), (mozjs_sym_html_comment, 5)]"

definition mozjs_parse_row_110 :: "(TSSymbol \<times> nat) list" where
  "mozjs_parse_row_110 =
    [(mozjs_sym_import, 1340), (mozjs_sym_parenthesized_expression, 525),
     (mozjs_sym_expression, 862), (mozjs_sym_primary_expression, 584),
     (mozjs_sym_yield_expression, 638), (mozjs_sym_object, 645),
     (mozjs_sym_object_pattern, 1287), (mozjs_sym_assignment_pattern, 1478),
     (mozjs_sym_array, 645), (mozjs_sym_array_pattern, 1287),
     (mozjs_sym_jsx_element, 638), (mozjs_sym_jsx_opening_element, 1152),
     (mozjs_sym_jsx_self_closing_element, 638), (mozjs_sym_class, 645),
     (mozjs_sym_function_expression, 645), (mozjs_sym_generator_function, 645),
     (mozjs_sym_arrow_function, 645), (mozjs_sym_call_expression, 645),
     (mozjs_sym_new_expression, 587), (mozjs_sym_await_expression, 638),
     (mozjs_sym_member_expression, 555), (mozjs_sym_subscript_expression, 555),
     (mozjs_sym_assignment_expression, 638), (mozjs_sym__augmented_assignment_lhs, 1145),
     (mozjs_sym_augmented_assignment_expression, 638), (mozjs_sym__destructuring_pattern, 1287),
     (mozjs_sym_spread_element, 1413), (mozjs_sym_ternary_expression, 638),
     (mozjs_sym_binary_expression, 638), (mozjs_sym_unary_expression, 638),
     (mozjs_sym_update_expression, 638), (mozjs_sym_string, 645),
     (mozjs_sym_template_string, 645), (mozjs_sym_regex, 645),
     (mozjs_sym_meta_property, 645), (mozjs_sym_decorator, 1112),
     (mozjs_sym_formal_parameters, 1777), (mozjs_sym_pattern, 1354),
     (mozjs_sym_rest_pattern, 1294), (mozjs_aux_sym_export_statement_repeat1, 1395),
     (mozjs_aux_sym_array_repeat1, 1415), (mozjs_aux_sym_array_pattern_repeat1, 1483),
     (mozjs_sym_identifier, 817), (mozjs_anon_sym_export, 819),
     (mozjs_anon_sym_LBRACE, 465), (mozjs_anon_sym_COMMA, 821),
     (mozjs_anon_sym_import, 390), (mozjs_anon_sym_let, 819),
     (mozjs_anon_sym_await, 823), (mozjs_anon_sym_LPAREN, 657),
     (mozjs_anon_sym_yield, 397), (mozjs_anon_sym_LBRACK, 683),
     (mozjs_anon_sym_RBRACK, 839), (mozjs_anon_sym_LT, 827),
     (mozjs_anon_sym_DQUOTE, 407), (mozjs_anon_sym_SQUOTE, 409),
     (mozjs_anon_sym_class, 411), (mozjs_anon_sym_async, 829),
     (mozjs_anon_sym_function, 415), (mozjs_anon_sym_new, 419),
     (mozjs_anon_sym_DOT_DOT_DOT, 117), (mozjs_anon_sym_PLUS, 427),
     (mozjs_anon_sym_DASH, 427), (mozjs_anon_sym_SLASH, 665),
     (mozjs_anon_sym_BANG, 429), (mozjs_anon_sym_TILDE, 429),
     (mozjs_anon_sym_typeof, 427), (mozjs_anon_sym_void, 427),
     (mozjs_anon_sym_delete, 427), (mozjs_anon_sym_PLUS_PLUS, 667),
     (mozjs_anon_sym_DASH_DASH, 667), (mozjs_sym_comment, 5),
     (mozjs_anon_sym_BQUOTE, 669), (mozjs_sym_number, 437),
     (mozjs_sym_private_property_identifier, 439), (mozjs_sym_this, 441),
     (mozjs_sym_super, 441), (mozjs_sym_true, 441),
     (mozjs_sym_false, 441), (mozjs_sym_null, 441),
     (mozjs_sym_undefined, 831), (mozjs_anon_sym_AT, 93),
     (mozjs_anon_sym_static, 819), (mozjs_anon_sym_get, 819),
     (mozjs_anon_sym_set, 819), (mozjs_sym_html_comment, 5)]"

definition mozjs_parse_row_111 :: "(TSSymbol \<times> nat) list" where
  "mozjs_parse_row_111 =
    [(mozjs_sym_import, 1340), (mozjs_sym_parenthesized_expression, 525),
     (mozjs_sym_expression, 862), (mozjs_sym_primary_expression, 584),
     (mozjs_sym_yield_expression, 638), (mozjs_sym_object, 645),
     (mozjs_sym_object_pattern, 1287), (mozjs_sym_assignment_pattern, 1478),
     (mozjs_sym_array, 645), (mozjs_sym_array_pattern, 1287),
     (mozjs_sym_jsx_element, 638), (mozjs_sym_jsx_opening_element, 1152),
     (mozjs_sym_jsx_self_closing_element, 638), (mozjs_sym_class, 645),
     (mozjs_sym_function_expression, 645), (mozjs_sym_generator_function, 645),
     (mozjs_sym_arrow_function, 645), (mozjs_sym_call_expression, 645),
     (mozjs_sym_new_expression, 587), (mozjs_sym_await_expression, 638),
     (mozjs_sym_member_expression, 555), (mozjs_sym_subscript_expression, 555),
     (mozjs_sym_assignment_expression, 638), (mozjs_sym__augmented_assignment_lhs, 1145),
     (mozjs_sym_augmented_assignment_expression, 638), (mozjs_sym__destructuring_pattern, 1287),
     (mozjs_sym_spread_element, 1413), (mozjs_sym_ternary_expression, 638),
     (mozjs_sym_binary_expression, 638), (mozjs_sym_unary_expression, 638),
     (mozjs_sym_update_expression, 638), (mozjs_sym_string, 645),
     (mozjs_sym_template_string, 645), (mozjs_sym_regex, 645),
     (mozjs_sym_meta_property, 645), (mozjs_sym_decorator, 1112),
     (mozjs_sym_formal_parameters, 1777), (mozjs_sym_pattern, 1354),
     (mozjs_sym_rest_pattern, 1294), (mozjs_aux_sym_export_statement_repeat1, 1395),
     (mozjs_aux_sym_array_repeat1, 1415), (mozjs_aux_sym_array_pattern_repeat1, 1483),
     (mozjs_sym_identifier, 817), (mozjs_anon_sym_export, 819),
     (mozjs_anon_sym_LBRACE, 465), (mozjs_anon_sym_COMMA, 821),
     (mozjs_anon_sym_import, 390), (mozjs_anon_sym_let, 819),
     (mozjs_anon_sym_await, 823), (mozjs_anon_sym_LPAREN, 657),
     (mozjs_anon_sym_yield, 397), (mozjs_anon_sym_LBRACK, 683),
     (mozjs_anon_sym_RBRACK, 841), (mozjs_anon_sym_LT, 827),
     (mozjs_anon_sym_DQUOTE, 407), (mozjs_anon_sym_SQUOTE, 409),
     (mozjs_anon_sym_class, 411), (mozjs_anon_sym_async, 829),
     (mozjs_anon_sym_function, 415), (mozjs_anon_sym_new, 419),
     (mozjs_anon_sym_DOT_DOT_DOT, 117), (mozjs_anon_sym_PLUS, 427),
     (mozjs_anon_sym_DASH, 427), (mozjs_anon_sym_SLASH, 665),
     (mozjs_anon_sym_BANG, 429), (mozjs_anon_sym_TILDE, 429),
     (mozjs_anon_sym_typeof, 427), (mozjs_anon_sym_void, 427),
     (mozjs_anon_sym_delete, 427), (mozjs_anon_sym_PLUS_PLUS, 667),
     (mozjs_anon_sym_DASH_DASH, 667), (mozjs_sym_comment, 5),
     (mozjs_anon_sym_BQUOTE, 669), (mozjs_sym_number, 437),
     (mozjs_sym_private_property_identifier, 439), (mozjs_sym_this, 441),
     (mozjs_sym_super, 441), (mozjs_sym_true, 441),
     (mozjs_sym_false, 441), (mozjs_sym_null, 441),
     (mozjs_sym_undefined, 831), (mozjs_anon_sym_AT, 93),
     (mozjs_anon_sym_static, 819), (mozjs_anon_sym_get, 819),
     (mozjs_anon_sym_set, 819), (mozjs_sym_html_comment, 5)]"

definition mozjs_parse_row_112 :: "(TSSymbol \<times> nat) list" where
  "mozjs_parse_row_112 =
    [(mozjs_sym_import, 1340), (mozjs_sym_parenthesized_expression, 525),
     (mozjs_sym_expression, 883), (mozjs_sym_primary_expression, 584),
     (mozjs_sym_yield_expression, 638), (mozjs_sym_object, 645),
     (mozjs_sym_object_pattern, 1827), (mozjs_sym_array, 645),
     (mozjs_sym_array_pattern, 1827), (mozjs_sym_jsx_element, 638),
     (mozjs_sym_jsx_opening_element, 1152), (mozjs_sym_jsx_self_closing_element, 638),
     (mozjs_sym_class, 645), (mozjs_sym_function_expression, 645),
     (mozjs_sym_generator_function, 645), (mozjs_sym_arrow_function, 645),
     (mozjs_sym_call_expression, 645), (mozjs_sym_new_expression, 587),
     (mozjs_sym_await_expression, 638), (mozjs_sym_member_expression, 525),
     (mozjs_sym_subscript_expression, 525), (mozjs_sym_assignment_expression, 638),
     (mozjs_sym__augmented_assignment_lhs, 1145), (mozjs_sym_augmented_assignment_expression,
       638),
     (mozjs_sym__initializer, 1457), (mozjs_sym__destructuring_pattern, 1827),
     (mozjs_sym_ternary_expression, 638), (mozjs_sym_binary_expression, 638),
     (mozjs_sym_unary_expression, 638), (mozjs_sym_update_expression, 638),
     (mozjs_sym_sequence_expression, 1767), (mozjs_sym_string, 645),
     (mozjs_sym_template_string, 645), (mozjs_sym_regex, 645),
     (mozjs_sym_meta_property, 645), (mozjs_sym_decorator, 1112),
     (mozjs_sym_formal_parameters, 1777), (mozjs_aux_sym_export_statement_repeat1, 1395),
     (mozjs_sym_identifier, 384), (mozjs_anon_sym_export, 386),
     (mozjs_anon_sym_LBRACE, 388), (mozjs_anon_sym_COMMA, 843),
     (mozjs_anon_sym_import, 390), (mozjs_anon_sym_let, 386),
     (mozjs_anon_sym_await, 392), (mozjs_anon_sym_of, 845),
     (mozjs_anon_sym_LPAREN, 657), (mozjs_anon_sym_SEMI, 843),
     (mozjs_anon_sym_in, 845), (mozjs_anon_sym_yield, 397),
     (mozjs_anon_sym_EQ, 847), (mozjs_anon_sym_LBRACK, 661),
     (mozjs_anon_sym_LT, 827), (mozjs_anon_sym_DQUOTE, 407),
     (mozjs_anon_sym_SQUOTE, 409), (mozjs_anon_sym_class, 411),
     (mozjs_anon_sym_async, 413), (mozjs_anon_sym_function, 415),
     (mozjs_anon_sym_new, 419), (mozjs_anon_sym_PLUS, 427),
     (mozjs_anon_sym_DASH, 427), (mozjs_anon_sym_SLASH, 665),
     (mozjs_anon_sym_BANG, 429), (mozjs_anon_sym_TILDE, 429),
     (mozjs_anon_sym_typeof, 427), (mozjs_anon_sym_void, 427),
     (mozjs_anon_sym_delete, 427), (mozjs_anon_sym_PLUS_PLUS, 667),
     (mozjs_anon_sym_DASH_DASH, 667), (mozjs_sym_comment, 5),
     (mozjs_anon_sym_BQUOTE, 669), (mozjs_sym_number, 437),
     (mozjs_sym_private_property_identifier, 439), (mozjs_sym_this, 441),
     (mozjs_sym_super, 441), (mozjs_sym_true, 441),
     (mozjs_sym_false, 441), (mozjs_sym_null, 441),
     (mozjs_sym_undefined, 443), (mozjs_anon_sym_AT, 93),
     (mozjs_anon_sym_static, 386), (mozjs_anon_sym_get, 386),
     (mozjs_anon_sym_set, 386), (mozjs_sym__automatic_semicolon, 849),
     (mozjs_sym_html_comment, 5)]"

definition mozjs_parse_row_113 :: "(TSSymbol \<times> nat) list" where
  "mozjs_parse_row_113 =
    [(mozjs_sym_import, 1340), (mozjs_sym_variable_declaration, 141),
     (mozjs_sym_lexical_declaration, 141), (mozjs_sym_empty_statement, 141),
     (mozjs_sym_parenthesized_expression, 562), (mozjs_sym_expression, 846),
     (mozjs_sym_primary_expression, 584), (mozjs_sym_yield_expression, 638),
     (mozjs_sym_object, 645), (mozjs_sym_object_pattern, 1476),
     (mozjs_sym_array, 645), (mozjs_sym_array_pattern, 1476),
     (mozjs_sym_jsx_element, 638), (mozjs_sym_jsx_opening_element, 1152),
     (mozjs_sym_jsx_self_closing_element, 638), (mozjs_sym_class, 645),
     (mozjs_sym_function_expression, 645), (mozjs_sym_generator_function, 645),
     (mozjs_sym_arrow_function, 645), (mozjs_sym_call_expression, 645),
     (mozjs_sym_new_expression, 587), (mozjs_sym_await_expression, 638),
     (mozjs_sym_member_expression, 562), (mozjs_sym_subscript_expression, 562),
     (mozjs_sym_assignment_expression, 638), (mozjs_sym__augmented_assignment_lhs, 1145),
     (mozjs_sym_augmented_assignment_expression, 638), (mozjs_sym__destructuring_pattern, 1476),
     (mozjs_sym_ternary_expression, 638), (mozjs_sym_binary_expression, 638),
     (mozjs_sym_unary_expression, 638), (mozjs_sym_update_expression, 638),
     (mozjs_sym_sequence_expression, 1796), (mozjs_sym_string, 645),
     (mozjs_sym_template_string, 645), (mozjs_sym_regex, 645),
     (mozjs_sym_meta_property, 645), (mozjs_sym_decorator, 1112),
     (mozjs_sym_formal_parameters, 1777), (mozjs_aux_sym_export_statement_repeat1, 1395),
     (mozjs_sym_identifier, 852), (mozjs_anon_sym_export, 854),
     (mozjs_anon_sym_LBRACE, 856), (mozjs_anon_sym_import, 390),
     (mozjs_anon_sym_var, 858), (mozjs_anon_sym_let, 860),
     (mozjs_anon_sym_const, 862), (mozjs_anon_sym_using, 864),
     (mozjs_anon_sym_await, 866), (mozjs_anon_sym_LPAREN, 657),
     (mozjs_anon_sym_SEMI, 868), (mozjs_anon_sym_yield, 397),
     (mozjs_anon_sym_LBRACK, 870), (mozjs_anon_sym_LT, 827),
     (mozjs_anon_sym_DQUOTE, 407), (mozjs_anon_sym_SQUOTE, 409),
     (mozjs_anon_sym_class, 411), (mozjs_anon_sym_async, 872),
     (mozjs_anon_sym_function, 415), (mozjs_anon_sym_new, 419),
     (mozjs_anon_sym_PLUS, 427), (mozjs_anon_sym_DASH, 427),
     (mozjs_anon_sym_SLASH, 665), (mozjs_anon_sym_BANG, 429),
     (mozjs_anon_sym_TILDE, 429), (mozjs_anon_sym_typeof, 427),
     (mozjs_anon_sym_void, 427), (mozjs_anon_sym_delete, 427),
     (mozjs_anon_sym_PLUS_PLUS, 667), (mozjs_anon_sym_DASH_DASH, 667),
     (mozjs_sym_comment, 5), (mozjs_anon_sym_BQUOTE, 669),
     (mozjs_sym_number, 437), (mozjs_sym_private_property_identifier, 439),
     (mozjs_sym_this, 441), (mozjs_sym_super, 441),
     (mozjs_sym_true, 441), (mozjs_sym_false, 441),
     (mozjs_sym_null, 441), (mozjs_sym_undefined, 874),
     (mozjs_anon_sym_AT, 93), (mozjs_anon_sym_static, 854),
     (mozjs_anon_sym_get, 854), (mozjs_anon_sym_set, 854),
     (mozjs_sym_html_comment, 5)]"

definition mozjs_parse_row_114 :: "(TSSymbol \<times> nat) list" where
  "mozjs_parse_row_114 =
    [(mozjs_sym_import, 1340), (mozjs_sym_variable_declaration, 142),
     (mozjs_sym_lexical_declaration, 142), (mozjs_sym_empty_statement, 142),
     (mozjs_sym_parenthesized_expression, 562), (mozjs_sym_expression, 890),
     (mozjs_sym_primary_expression, 584), (mozjs_sym_yield_expression, 638),
     (mozjs_sym_object, 645), (mozjs_sym_object_pattern, 1476),
     (mozjs_sym_array, 645), (mozjs_sym_array_pattern, 1476),
     (mozjs_sym_jsx_element, 638), (mozjs_sym_jsx_opening_element, 1152),
     (mozjs_sym_jsx_self_closing_element, 638), (mozjs_sym_class, 645),
     (mozjs_sym_function_expression, 645), (mozjs_sym_generator_function, 645),
     (mozjs_sym_arrow_function, 645), (mozjs_sym_call_expression, 645),
     (mozjs_sym_new_expression, 587), (mozjs_sym_await_expression, 638),
     (mozjs_sym_member_expression, 562), (mozjs_sym_subscript_expression, 562),
     (mozjs_sym_assignment_expression, 638), (mozjs_sym__augmented_assignment_lhs, 1145),
     (mozjs_sym_augmented_assignment_expression, 638), (mozjs_sym__destructuring_pattern, 1476),
     (mozjs_sym_ternary_expression, 638), (mozjs_sym_binary_expression, 638),
     (mozjs_sym_unary_expression, 638), (mozjs_sym_update_expression, 638),
     (mozjs_sym_sequence_expression, 1877), (mozjs_sym_string, 645),
     (mozjs_sym_template_string, 645), (mozjs_sym_regex, 645),
     (mozjs_sym_meta_property, 645), (mozjs_sym_decorator, 1112),
     (mozjs_sym_formal_parameters, 1777), (mozjs_aux_sym_export_statement_repeat1, 1395),
     (mozjs_sym_identifier, 852), (mozjs_anon_sym_export, 854),
     (mozjs_anon_sym_LBRACE, 856), (mozjs_anon_sym_import, 390),
     (mozjs_anon_sym_var, 858), (mozjs_anon_sym_let, 860),
     (mozjs_anon_sym_const, 862), (mozjs_anon_sym_using, 864),
     (mozjs_anon_sym_await, 866), (mozjs_anon_sym_LPAREN, 657),
     (mozjs_anon_sym_SEMI, 868), (mozjs_anon_sym_yield, 397),
     (mozjs_anon_sym_LBRACK, 870), (mozjs_anon_sym_LT, 827),
     (mozjs_anon_sym_DQUOTE, 407), (mozjs_anon_sym_SQUOTE, 409),
     (mozjs_anon_sym_class, 411), (mozjs_anon_sym_async, 872),
     (mozjs_anon_sym_function, 415), (mozjs_anon_sym_new, 419),
     (mozjs_anon_sym_PLUS, 427), (mozjs_anon_sym_DASH, 427),
     (mozjs_anon_sym_SLASH, 665), (mozjs_anon_sym_BANG, 429),
     (mozjs_anon_sym_TILDE, 429), (mozjs_anon_sym_typeof, 427),
     (mozjs_anon_sym_void, 427), (mozjs_anon_sym_delete, 427),
     (mozjs_anon_sym_PLUS_PLUS, 667), (mozjs_anon_sym_DASH_DASH, 667),
     (mozjs_sym_comment, 5), (mozjs_anon_sym_BQUOTE, 669),
     (mozjs_sym_number, 437), (mozjs_sym_private_property_identifier, 439),
     (mozjs_sym_this, 441), (mozjs_sym_super, 441),
     (mozjs_sym_true, 441), (mozjs_sym_false, 441),
     (mozjs_sym_null, 441), (mozjs_sym_undefined, 874),
     (mozjs_anon_sym_AT, 93), (mozjs_anon_sym_static, 854),
     (mozjs_anon_sym_get, 854), (mozjs_anon_sym_set, 854),
     (mozjs_sym_html_comment, 5)]"

definition mozjs_parse_row_115 :: "(TSSymbol \<times> nat) list" where
  "mozjs_parse_row_115 =
    [(mozjs_sym_import, 1340), (mozjs_sym_parenthesized_expression, 525),
     (mozjs_sym_expression, 849), (mozjs_sym_primary_expression, 584),
     (mozjs_sym_yield_expression, 638), (mozjs_sym_object, 645),
     (mozjs_sym_object_pattern, 1287), (mozjs_sym_assignment_pattern, 1687),
     (mozjs_sym_array, 645), (mozjs_sym_array_pattern, 1287),
     (mozjs_sym_jsx_element, 638), (mozjs_sym_jsx_opening_element, 1152),
     (mozjs_sym_jsx_self_closing_element, 638), (mozjs_sym_class, 645),
     (mozjs_sym_function_expression, 645), (mozjs_sym_generator_function, 645),
     (mozjs_sym_arrow_function, 645), (mozjs_sym_call_expression, 645),
     (mozjs_sym_new_expression, 587), (mozjs_sym_await_expression, 638),
     (mozjs_sym_member_expression, 555), (mozjs_sym_subscript_expression, 555),
     (mozjs_sym_assignment_expression, 638), (mozjs_sym__augmented_assignment_lhs, 1145),
     (mozjs_sym_augmented_assignment_expression, 638), (mozjs_sym__destructuring_pattern, 1287),
     (mozjs_sym_spread_element, 1490), (mozjs_sym_ternary_expression, 638),
     (mozjs_sym_binary_expression, 638), (mozjs_sym_unary_expression, 638),
     (mozjs_sym_update_expression, 638), (mozjs_sym_string, 645),
     (mozjs_sym_template_string, 645), (mozjs_sym_regex, 645),
     (mozjs_sym_meta_property, 645), (mozjs_sym_decorator, 1112),
     (mozjs_sym_formal_parameters, 1777), (mozjs_sym_pattern, 1491),
     (mozjs_sym_rest_pattern, 1294), (mozjs_aux_sym_export_statement_repeat1, 1395),
     (mozjs_sym_identifier, 817), (mozjs_anon_sym_export, 819),
     (mozjs_anon_sym_LBRACE, 465), (mozjs_anon_sym_COMMA, 876),
     (mozjs_anon_sym_import, 390), (mozjs_anon_sym_let, 819),
     (mozjs_anon_sym_await, 823), (mozjs_anon_sym_LPAREN, 657),
     (mozjs_anon_sym_yield, 397), (mozjs_anon_sym_LBRACK, 683),
     (mozjs_anon_sym_RBRACK, 876), (mozjs_anon_sym_LT, 827),
     (mozjs_anon_sym_DQUOTE, 407), (mozjs_anon_sym_SQUOTE, 409),
     (mozjs_anon_sym_class, 411), (mozjs_anon_sym_async, 829),
     (mozjs_anon_sym_function, 415), (mozjs_anon_sym_new, 419),
     (mozjs_anon_sym_DOT_DOT_DOT, 117), (mozjs_anon_sym_PLUS, 427),
     (mozjs_anon_sym_DASH, 427), (mozjs_anon_sym_SLASH, 665),
     (mozjs_anon_sym_BANG, 429), (mozjs_anon_sym_TILDE, 429),
     (mozjs_anon_sym_typeof, 427), (mozjs_anon_sym_void, 427),
     (mozjs_anon_sym_delete, 427), (mozjs_anon_sym_PLUS_PLUS, 667),
     (mozjs_anon_sym_DASH_DASH, 667), (mozjs_sym_comment, 5),
     (mozjs_anon_sym_BQUOTE, 669), (mozjs_sym_number, 437),
     (mozjs_sym_private_property_identifier, 439), (mozjs_sym_this, 441),
     (mozjs_sym_super, 441), (mozjs_sym_true, 441),
     (mozjs_sym_false, 441), (mozjs_sym_null, 441),
     (mozjs_sym_undefined, 831), (mozjs_anon_sym_AT, 93),
     (mozjs_anon_sym_static, 819), (mozjs_anon_sym_get, 819),
     (mozjs_anon_sym_set, 819), (mozjs_sym_html_comment, 5)]"

definition mozjs_parse_row_116 :: "(TSSymbol \<times> nat) list" where
  "mozjs_parse_row_116 =
    [(mozjs_sym_import, 1340), (mozjs_sym_parenthesized_expression, 499),
     (mozjs_sym_expression, 985), (mozjs_sym_primary_expression, 584),
     (mozjs_sym_yield_expression, 638), (mozjs_sym_object, 645),
     (mozjs_sym_object_pattern, 1309), (mozjs_sym_assignment_pattern, 1478),
     (mozjs_sym_array, 645), (mozjs_sym_array_pattern, 1309),
     (mozjs_sym_jsx_element, 638), (mozjs_sym_jsx_opening_element, 1152),
     (mozjs_sym_jsx_self_closing_element, 638), (mozjs_sym_class, 645),
     (mozjs_sym_function_expression, 645), (mozjs_sym_generator_function, 645),
     (mozjs_sym_arrow_function, 645), (mozjs_sym_call_expression, 645),
     (mozjs_sym_new_expression, 587), (mozjs_sym_await_expression, 638),
     (mozjs_sym_member_expression, 554), (mozjs_sym_subscript_expression, 554),
     (mozjs_sym_assignment_expression, 638), (mozjs_sym__augmented_assignment_lhs, 1144),
     (mozjs_sym_augmented_assignment_expression, 638), (mozjs_sym__destructuring_pattern, 1309),
     (mozjs_sym_ternary_expression, 638), (mozjs_sym_binary_expression, 638),
     (mozjs_sym_unary_expression, 638), (mozjs_sym_update_expression, 638),
     (mozjs_sym_string, 645), (mozjs_sym_template_string, 645),
     (mozjs_sym_regex, 645), (mozjs_sym_meta_property, 645),
     (mozjs_sym_decorator, 1112), (mozjs_sym_formal_parameters, 1828),
     (mozjs_sym_pattern, 1354), (mozjs_sym_rest_pattern, 1294),
     (mozjs_aux_sym_export_statement_repeat1, 1395), (mozjs_aux_sym_array_pattern_repeat1, 1483),
     (mozjs_sym_identifier, 879), (mozjs_anon_sym_export, 881),
     (mozjs_anon_sym_LBRACE, 883), (mozjs_anon_sym_COMMA, 885),
     (mozjs_anon_sym_import, 390), (mozjs_anon_sym_let, 881),
     (mozjs_anon_sym_await, 887), (mozjs_anon_sym_LPAREN, 657),
     (mozjs_anon_sym_yield, 469), (mozjs_anon_sym_LBRACK, 889),
     (mozjs_anon_sym_RBRACK, 891), (mozjs_anon_sym_LT, 827),
     (mozjs_anon_sym_DQUOTE, 407), (mozjs_anon_sym_SQUOTE, 409),
     (mozjs_anon_sym_class, 411), (mozjs_anon_sym_async, 893),
     (mozjs_anon_sym_function, 415), (mozjs_anon_sym_new, 478),
     (mozjs_anon_sym_DOT_DOT_DOT, 895), (mozjs_anon_sym_PLUS, 483),
     (mozjs_anon_sym_DASH, 483), (mozjs_anon_sym_SLASH, 665),
     (mozjs_anon_sym_BANG, 485), (mozjs_anon_sym_TILDE, 485),
     (mozjs_anon_sym_typeof, 483), (mozjs_anon_sym_void, 483),
     (mozjs_anon_sym_delete, 483), (mozjs_anon_sym_PLUS_PLUS, 691),
     (mozjs_anon_sym_DASH_DASH, 691), (mozjs_sym_comment, 5),
     (mozjs_anon_sym_BQUOTE, 669), (mozjs_sym_number, 437),
     (mozjs_sym_private_property_identifier, 490), (mozjs_sym_this, 441),
     (mozjs_sym_super, 441), (mozjs_sym_true, 441),
     (mozjs_sym_false, 441), (mozjs_sym_null, 441),
     (mozjs_sym_undefined, 897), (mozjs_anon_sym_AT, 93),
     (mozjs_anon_sym_static, 881), (mozjs_anon_sym_get, 881),
     (mozjs_anon_sym_set, 881), (mozjs_sym_html_comment, 5)]"

definition mozjs_parse_row_117 :: "(TSSymbol \<times> nat) list" where
  "mozjs_parse_row_117 =
    [(mozjs_sym_import, 1340), (mozjs_sym_parenthesized_expression, 525),
     (mozjs_sym_expression, 981), (mozjs_sym_primary_expression, 584),
     (mozjs_sym_yield_expression, 638), (mozjs_sym_object, 645),
     (mozjs_sym_object_pattern, 1287), (mozjs_sym_assignment_pattern, 1478),
     (mozjs_sym_array, 645), (mozjs_sym_array_pattern, 1287),
     (mozjs_sym_jsx_element, 638), (mozjs_sym_jsx_opening_element, 1152),
     (mozjs_sym_jsx_self_closing_element, 638), (mozjs_sym_class, 645),
     (mozjs_sym_function_expression, 645), (mozjs_sym_generator_function, 645),
     (mozjs_sym_arrow_function, 645), (mozjs_sym_call_expression, 645),
     (mozjs_sym_new_expression, 587), (mozjs_sym_await_expression, 638),
     (mozjs_sym_member_expression, 569), (mozjs_sym_subscript_expression, 569),
     (mozjs_sym_assignment_expression, 638), (mozjs_sym__augmented_assignment_lhs, 1145),
     (mozjs_sym_augmented_assignment_expression, 638), (mozjs_sym__destructuring_pattern, 1287),
     (mozjs_sym_ternary_expression, 638), (mozjs_sym_binary_expression, 638),
     (mozjs_sym_unary_expression, 638), (mozjs_sym_update_expression, 638),
     (mozjs_sym_string, 645), (mozjs_sym_template_string, 645),
     (mozjs_sym_regex, 645), (mozjs_sym_meta_property, 645),
     (mozjs_sym_decorator, 1112), (mozjs_sym_formal_parameters, 1777),
     (mozjs_sym_pattern, 1354), (mozjs_sym_rest_pattern, 1294),
     (mozjs_aux_sym_export_statement_repeat1, 1395), (mozjs_aux_sym_array_pattern_repeat1, 1483),
     (mozjs_sym_identifier, 899), (mozjs_anon_sym_export, 901),
     (mozjs_anon_sym_LBRACE, 903), (mozjs_anon_sym_COMMA, 885),
     (mozjs_anon_sym_import, 390), (mozjs_anon_sym_let, 901),
     (mozjs_anon_sym_await, 905), (mozjs_anon_sym_LPAREN, 657),
     (mozjs_anon_sym_yield, 397), (mozjs_anon_sym_LBRACK, 907),
     (mozjs_anon_sym_RBRACK, 891), (mozjs_anon_sym_LT, 827),
     (mozjs_anon_sym_DQUOTE, 407), (mozjs_anon_sym_SQUOTE, 409),
     (mozjs_anon_sym_class, 411), (mozjs_anon_sym_async, 909),
     (mozjs_anon_sym_function, 415), (mozjs_anon_sym_new, 419),
     (mozjs_anon_sym_DOT_DOT_DOT, 895), (mozjs_anon_sym_PLUS, 427),
     (mozjs_anon_sym_DASH, 427), (mozjs_anon_sym_SLASH, 665),
     (mozjs_anon_sym_BANG, 429), (mozjs_anon_sym_TILDE, 429),
     (mozjs_anon_sym_typeof, 427), (mozjs_anon_sym_void, 427),
     (mozjs_anon_sym_delete, 427), (mozjs_anon_sym_PLUS_PLUS, 667),
     (mozjs_anon_sym_DASH_DASH, 667), (mozjs_sym_comment, 5),
     (mozjs_anon_sym_BQUOTE, 669), (mozjs_sym_number, 437),
     (mozjs_sym_private_property_identifier, 439), (mozjs_sym_this, 441),
     (mozjs_sym_super, 441), (mozjs_sym_true, 441),
     (mozjs_sym_false, 441), (mozjs_sym_null, 441),
     (mozjs_sym_undefined, 911), (mozjs_anon_sym_AT, 93),
     (mozjs_anon_sym_static, 901), (mozjs_anon_sym_get, 901),
     (mozjs_anon_sym_set, 901), (mozjs_sym_html_comment, 5)]"

definition mozjs_parse_row_118 :: "(TSSymbol \<times> nat) list" where
  "mozjs_parse_row_118 =
    [(mozjs_sym_import, 1340), (mozjs_sym_parenthesized_expression, 499),
     (mozjs_sym_expression, 985), (mozjs_sym_primary_expression, 584),
     (mozjs_sym_yield_expression, 638), (mozjs_sym_object, 645),
     (mozjs_sym_object_pattern, 1309), (mozjs_sym_assignment_pattern, 1412),
     (mozjs_sym_array, 645), (mozjs_sym_array_pattern, 1309),
     (mozjs_sym_jsx_element, 638), (mozjs_sym_jsx_opening_element, 1152),
     (mozjs_sym_jsx_self_closing_element, 638), (mozjs_sym_class, 645),
     (mozjs_sym_function_expression, 645), (mozjs_sym_generator_function, 645),
     (mozjs_sym_arrow_function, 645), (mozjs_sym_call_expression, 645),
     (mozjs_sym_new_expression, 587), (mozjs_sym_await_expression, 638),
     (mozjs_sym_member_expression, 554), (mozjs_sym_subscript_expression, 554),
     (mozjs_sym_assignment_expression, 638), (mozjs_sym__augmented_assignment_lhs, 1144),
     (mozjs_sym_augmented_assignment_expression, 638), (mozjs_sym__destructuring_pattern, 1309),
     (mozjs_sym_ternary_expression, 638), (mozjs_sym_binary_expression, 638),
     (mozjs_sym_unary_expression, 638), (mozjs_sym_update_expression, 638),
     (mozjs_sym_string, 645), (mozjs_sym_template_string, 645),
     (mozjs_sym_regex, 645), (mozjs_sym_meta_property, 645),
     (mozjs_sym_decorator, 1112), (mozjs_sym_formal_parameters, 1828),
     (mozjs_sym_pattern, 1385), (mozjs_sym_rest_pattern, 1294),
     (mozjs_aux_sym_export_statement_repeat1, 1395), (mozjs_aux_sym_array_pattern_repeat1, 1416),
     (mozjs_sym_identifier, 879), (mozjs_anon_sym_export, 881),
     (mozjs_anon_sym_LBRACE, 883), (mozjs_anon_sym_COMMA, 885),
     (mozjs_anon_sym_import, 390), (mozjs_anon_sym_let, 881),
     (mozjs_anon_sym_await, 887), (mozjs_anon_sym_LPAREN, 657),
     (mozjs_anon_sym_yield, 469), (mozjs_anon_sym_LBRACK, 889),
     (mozjs_anon_sym_RBRACK, 913), (mozjs_anon_sym_LT, 827),
     (mozjs_anon_sym_DQUOTE, 407), (mozjs_anon_sym_SQUOTE, 409),
     (mozjs_anon_sym_class, 411), (mozjs_anon_sym_async, 893),
     (mozjs_anon_sym_function, 415), (mozjs_anon_sym_new, 478),
     (mozjs_anon_sym_DOT_DOT_DOT, 895), (mozjs_anon_sym_PLUS, 483),
     (mozjs_anon_sym_DASH, 483), (mozjs_anon_sym_SLASH, 665),
     (mozjs_anon_sym_BANG, 485), (mozjs_anon_sym_TILDE, 485),
     (mozjs_anon_sym_typeof, 483), (mozjs_anon_sym_void, 483),
     (mozjs_anon_sym_delete, 483), (mozjs_anon_sym_PLUS_PLUS, 691),
     (mozjs_anon_sym_DASH_DASH, 691), (mozjs_sym_comment, 5),
     (mozjs_anon_sym_BQUOTE, 669), (mozjs_sym_number, 437),
     (mozjs_sym_private_property_identifier, 490), (mozjs_sym_this, 441),
     (mozjs_sym_super, 441), (mozjs_sym_true, 441),
     (mozjs_sym_false, 441), (mozjs_sym_null, 441),
     (mozjs_sym_undefined, 897), (mozjs_anon_sym_AT, 93),
     (mozjs_anon_sym_static, 881), (mozjs_anon_sym_get, 881),
     (mozjs_anon_sym_set, 881), (mozjs_sym_html_comment, 5)]"

definition mozjs_parse_row_119 :: "(TSSymbol \<times> nat) list" where
  "mozjs_parse_row_119 =
    [(mozjs_sym_import, 1340), (mozjs_sym_parenthesized_expression, 525),
     (mozjs_sym_expression, 877), (mozjs_sym_primary_expression, 584),
     (mozjs_sym_yield_expression, 638), (mozjs_sym_object, 645),
     (mozjs_sym_object_pattern, 1287), (mozjs_sym_assignment_pattern, 1469),
     (mozjs_sym_array, 645), (mozjs_sym_array_pattern, 1287),
     (mozjs_sym_jsx_element, 638), (mozjs_sym_jsx_opening_element, 1152),
     (mozjs_sym_jsx_self_closing_element, 638), (mozjs_sym_class, 645),
     (mozjs_sym_function_expression, 645), (mozjs_sym_generator_function, 645),
     (mozjs_sym_arrow_function, 645), (mozjs_sym_call_expression, 645),
     (mozjs_sym_new_expression, 587), (mozjs_sym_await_expression, 638),
     (mozjs_sym_member_expression, 555), (mozjs_sym_subscript_expression, 555),
     (mozjs_sym_assignment_expression, 638), (mozjs_sym__augmented_assignment_lhs, 1145),
     (mozjs_sym_augmented_assignment_expression, 638), (mozjs_sym__destructuring_pattern, 1287),
     (mozjs_sym_ternary_expression, 638), (mozjs_sym_binary_expression, 638),
     (mozjs_sym_unary_expression, 638), (mozjs_sym_update_expression, 638),
     (mozjs_sym_sequence_expression, 1785), (mozjs_sym_string, 645),
     (mozjs_sym_template_string, 645), (mozjs_sym_regex, 645),
     (mozjs_sym_meta_property, 645), (mozjs_sym_decorator, 1112),
     (mozjs_sym_formal_parameters, 1777), (mozjs_sym_pattern, 1373),
     (mozjs_sym_rest_pattern, 1294), (mozjs_aux_sym_export_statement_repeat1, 1395),
     (mozjs_sym_identifier, 817), (mozjs_anon_sym_export, 819),
     (mozjs_anon_sym_LBRACE, 465), (mozjs_anon_sym_import, 390),
     (mozjs_anon_sym_let, 819), (mozjs_anon_sym_await, 823),
     (mozjs_anon_sym_LPAREN, 657), (mozjs_anon_sym_RPAREN, 915),
     (mozjs_anon_sym_yield, 397), (mozjs_anon_sym_LBRACK, 683),
     (mozjs_anon_sym_LT, 827), (mozjs_anon_sym_DQUOTE, 407),
     (mozjs_anon_sym_SQUOTE, 409), (mozjs_anon_sym_class, 411),
     (mozjs_anon_sym_async, 829), (mozjs_anon_sym_function, 415),
     (mozjs_anon_sym_new, 419), (mozjs_anon_sym_DOT_DOT_DOT, 895),
     (mozjs_anon_sym_PLUS, 427), (mozjs_anon_sym_DASH, 427),
     (mozjs_anon_sym_SLASH, 665), (mozjs_anon_sym_BANG, 429),
     (mozjs_anon_sym_TILDE, 429), (mozjs_anon_sym_typeof, 427),
     (mozjs_anon_sym_void, 427), (mozjs_anon_sym_delete, 427),
     (mozjs_anon_sym_PLUS_PLUS, 667), (mozjs_anon_sym_DASH_DASH, 667),
     (mozjs_sym_comment, 5), (mozjs_anon_sym_BQUOTE, 669),
     (mozjs_sym_number, 437), (mozjs_sym_private_property_identifier, 439),
     (mozjs_sym_this, 441), (mozjs_sym_super, 441),
     (mozjs_sym_true, 441), (mozjs_sym_false, 441),
     (mozjs_sym_null, 441), (mozjs_sym_undefined, 831),
     (mozjs_anon_sym_AT, 93), (mozjs_anon_sym_static, 819),
     (mozjs_anon_sym_get, 819), (mozjs_anon_sym_set, 819),
     (mozjs_sym_html_comment, 5)]"

definition mozjs_parse_row_120 :: "(TSSymbol \<times> nat) list" where
  "mozjs_parse_row_120 =
    [(mozjs_sym_import, 1340), (mozjs_sym_parenthesized_expression, 525),
     (mozjs_sym_expression, 869), (mozjs_sym_primary_expression, 584),
     (mozjs_sym_yield_expression, 638), (mozjs_sym_object, 645),
     (mozjs_sym_object_pattern, 1287), (mozjs_sym_assignment_pattern, 1469),
     (mozjs_sym_array, 645), (mozjs_sym_array_pattern, 1287),
     (mozjs_sym_jsx_element, 638), (mozjs_sym_jsx_opening_element, 1152),
     (mozjs_sym_jsx_self_closing_element, 638), (mozjs_sym_class, 645),
     (mozjs_sym_function_expression, 645), (mozjs_sym_generator_function, 645),
     (mozjs_sym_arrow_function, 645), (mozjs_sym_call_expression, 645),
     (mozjs_sym_new_expression, 587), (mozjs_sym_await_expression, 638),
     (mozjs_sym_member_expression, 555), (mozjs_sym_subscript_expression, 555),
     (mozjs_sym_assignment_expression, 638), (mozjs_sym__augmented_assignment_lhs, 1145),
     (mozjs_sym_augmented_assignment_expression, 638), (mozjs_sym__destructuring_pattern, 1287),
     (mozjs_sym_ternary_expression, 638), (mozjs_sym_binary_expression, 638),
     (mozjs_sym_unary_expression, 638), (mozjs_sym_update_expression, 638),
     (mozjs_sym_sequence_expression, 1862), (mozjs_sym_string, 645),
     (mozjs_sym_template_string, 645), (mozjs_sym_regex, 645),
     (mozjs_sym_meta_property, 645), (mozjs_sym_decorator, 1112),
     (mozjs_sym_formal_parameters, 1777), (mozjs_sym_pattern, 1373),
     (mozjs_sym_rest_pattern, 1294), (mozjs_aux_sym_export_statement_repeat1, 1395),
     (mozjs_sym_identifier, 817), (mozjs_anon_sym_export, 819),
     (mozjs_anon_sym_LBRACE, 465), (mozjs_anon_sym_import, 390),
     (mozjs_anon_sym_let, 819), (mozjs_anon_sym_await, 823),
     (mozjs_anon_sym_LPAREN, 657), (mozjs_anon_sym_RPAREN, 915),
     (mozjs_anon_sym_yield, 397), (mozjs_anon_sym_LBRACK, 683),
     (mozjs_anon_sym_LT, 827), (mozjs_anon_sym_DQUOTE, 407),
     (mozjs_anon_sym_SQUOTE, 409), (mozjs_anon_sym_class, 411),
     (mozjs_anon_sym_async, 829), (mozjs_anon_sym_function, 415),
     (mozjs_anon_sym_new, 419), (mozjs_anon_sym_DOT_DOT_DOT, 895),
     (mozjs_anon_sym_PLUS, 427), (mozjs_anon_sym_DASH, 427),
     (mozjs_anon_sym_SLASH, 665), (mozjs_anon_sym_BANG, 429),
     (mozjs_anon_sym_TILDE, 429), (mozjs_anon_sym_typeof, 427),
     (mozjs_anon_sym_void, 427), (mozjs_anon_sym_delete, 427),
     (mozjs_anon_sym_PLUS_PLUS, 667), (mozjs_anon_sym_DASH_DASH, 667),
     (mozjs_sym_comment, 5), (mozjs_anon_sym_BQUOTE, 669),
     (mozjs_sym_number, 437), (mozjs_sym_private_property_identifier, 439),
     (mozjs_sym_this, 441), (mozjs_sym_super, 441),
     (mozjs_sym_true, 441), (mozjs_sym_false, 441),
     (mozjs_sym_null, 441), (mozjs_sym_undefined, 831),
     (mozjs_anon_sym_AT, 93), (mozjs_anon_sym_static, 819),
     (mozjs_anon_sym_get, 819), (mozjs_anon_sym_set, 819),
     (mozjs_sym_html_comment, 5)]"

definition mozjs_parse_row_121 :: "(TSSymbol \<times> nat) list" where
  "mozjs_parse_row_121 =
    [(mozjs_sym_import, 1340), (mozjs_sym_parenthesized_expression, 499),
     (mozjs_sym_expression, 985), (mozjs_sym_primary_expression, 584),
     (mozjs_sym_yield_expression, 638), (mozjs_sym_object, 645),
     (mozjs_sym_object_pattern, 1309), (mozjs_sym_assignment_pattern, 1687),
     (mozjs_sym_array, 645), (mozjs_sym_array_pattern, 1309),
     (mozjs_sym_jsx_element, 638), (mozjs_sym_jsx_opening_element, 1152),
     (mozjs_sym_jsx_self_closing_element, 638), (mozjs_sym_class, 645),
     (mozjs_sym_function_expression, 645), (mozjs_sym_generator_function, 645),
     (mozjs_sym_arrow_function, 645), (mozjs_sym_call_expression, 645),
     (mozjs_sym_new_expression, 587), (mozjs_sym_await_expression, 638),
     (mozjs_sym_member_expression, 554), (mozjs_sym_subscript_expression, 554),
     (mozjs_sym_assignment_expression, 638), (mozjs_sym__augmented_assignment_lhs, 1144),
     (mozjs_sym_augmented_assignment_expression, 638), (mozjs_sym__destructuring_pattern, 1309),
     (mozjs_sym_ternary_expression, 638), (mozjs_sym_binary_expression, 638),
     (mozjs_sym_unary_expression, 638), (mozjs_sym_update_expression, 638),
     (mozjs_sym_string, 645), (mozjs_sym_template_string, 645),
     (mozjs_sym_regex, 645), (mozjs_sym_meta_property, 645),
     (mozjs_sym_decorator, 1112), (mozjs_sym_formal_parameters, 1828),
     (mozjs_sym_pattern, 1491), (mozjs_sym_rest_pattern, 1294),
     (mozjs_aux_sym_export_statement_repeat1, 1395), (mozjs_sym_identifier, 879),
     (mozjs_anon_sym_export, 881), (mozjs_anon_sym_LBRACE, 883),
     (mozjs_anon_sym_COMMA, 917), (mozjs_anon_sym_import, 390),
     (mozjs_anon_sym_let, 881), (mozjs_anon_sym_await, 887),
     (mozjs_anon_sym_LPAREN, 657), (mozjs_anon_sym_yield, 469),
     (mozjs_anon_sym_LBRACK, 889), (mozjs_anon_sym_RBRACK, 917),
     (mozjs_anon_sym_LT, 827), (mozjs_anon_sym_DQUOTE, 407),
     (mozjs_anon_sym_SQUOTE, 409), (mozjs_anon_sym_class, 411),
     (mozjs_anon_sym_async, 893), (mozjs_anon_sym_function, 415),
     (mozjs_anon_sym_new, 478), (mozjs_anon_sym_DOT_DOT_DOT, 895),
     (mozjs_anon_sym_PLUS, 483), (mozjs_anon_sym_DASH, 483),
     (mozjs_anon_sym_SLASH, 665), (mozjs_anon_sym_BANG, 485),
     (mozjs_anon_sym_TILDE, 485), (mozjs_anon_sym_typeof, 483),
     (mozjs_anon_sym_void, 483), (mozjs_anon_sym_delete, 483),
     (mozjs_anon_sym_PLUS_PLUS, 691), (mozjs_anon_sym_DASH_DASH, 691),
     (mozjs_sym_comment, 5), (mozjs_anon_sym_BQUOTE, 669),
     (mozjs_sym_number, 437), (mozjs_sym_private_property_identifier, 490),
     (mozjs_sym_this, 441), (mozjs_sym_super, 441),
     (mozjs_sym_true, 441), (mozjs_sym_false, 441),
     (mozjs_sym_null, 441), (mozjs_sym_undefined, 897),
     (mozjs_anon_sym_AT, 93), (mozjs_anon_sym_static, 881),
     (mozjs_anon_sym_get, 881), (mozjs_anon_sym_set, 881),
     (mozjs_sym_html_comment, 5)]"

definition mozjs_parse_row_122 :: "(TSSymbol \<times> nat) list" where
  "mozjs_parse_row_122 =
    [(mozjs_sym_import, 1340), (mozjs_sym_parenthesized_expression, 525),
     (mozjs_sym_expression, 863), (mozjs_sym_primary_expression, 584),
     (mozjs_sym_yield_expression, 638), (mozjs_sym_object, 645),
     (mozjs_sym_object_pattern, 1827), (mozjs_sym_array, 645),
     (mozjs_sym_array_pattern, 1827), (mozjs_sym_jsx_element, 638),
     (mozjs_sym_jsx_opening_element, 1152), (mozjs_sym_jsx_self_closing_element, 638),
     (mozjs_sym_class, 645), (mozjs_sym_function_expression, 645),
     (mozjs_sym_generator_function, 645), (mozjs_sym_arrow_function, 645),
     (mozjs_sym_call_expression, 645), (mozjs_sym_new_expression, 587),
     (mozjs_sym_await_expression, 638), (mozjs_sym_member_expression, 525),
     (mozjs_sym_subscript_expression, 525), (mozjs_sym_assignment_expression, 638),
     (mozjs_sym__augmented_assignment_lhs, 1145), (mozjs_sym_augmented_assignment_expression,
       638),
     (mozjs_sym__destructuring_pattern, 1827), (mozjs_sym_spread_element, 1508),
     (mozjs_sym_ternary_expression, 638), (mozjs_sym_binary_expression, 638),
     (mozjs_sym_unary_expression, 638), (mozjs_sym_update_expression, 638),
     (mozjs_sym_string, 645), (mozjs_sym_template_string, 645),
     (mozjs_sym_regex, 645), (mozjs_sym_meta_property, 645),
     (mozjs_sym_decorator, 1112), (mozjs_sym_formal_parameters, 1777),
     (mozjs_aux_sym_export_statement_repeat1, 1395), (mozjs_aux_sym_array_repeat1, 1464),
     (mozjs_sym_identifier, 384), (mozjs_anon_sym_export, 386),
     (mozjs_anon_sym_LBRACE, 388), (mozjs_anon_sym_COMMA, 919),
     (mozjs_anon_sym_import, 390), (mozjs_anon_sym_let, 386),
     (mozjs_anon_sym_await, 392), (mozjs_anon_sym_LPAREN, 657),
     (mozjs_anon_sym_RPAREN, 921), (mozjs_anon_sym_yield, 397),
     (mozjs_anon_sym_LBRACK, 661), (mozjs_anon_sym_LT, 827),
     (mozjs_anon_sym_DQUOTE, 407), (mozjs_anon_sym_SQUOTE, 409),
     (mozjs_anon_sym_class, 411), (mozjs_anon_sym_async, 413),
     (mozjs_anon_sym_function, 415), (mozjs_anon_sym_new, 419),
     (mozjs_anon_sym_DOT_DOT_DOT, 923), (mozjs_anon_sym_PLUS, 427),
     (mozjs_anon_sym_DASH, 427), (mozjs_anon_sym_SLASH, 665),
     (mozjs_anon_sym_BANG, 429), (mozjs_anon_sym_TILDE, 429),
     (mozjs_anon_sym_typeof, 427), (mozjs_anon_sym_void, 427),
     (mozjs_anon_sym_delete, 427), (mozjs_anon_sym_PLUS_PLUS, 667),
     (mozjs_anon_sym_DASH_DASH, 667), (mozjs_sym_comment, 5),
     (mozjs_anon_sym_BQUOTE, 669), (mozjs_sym_number, 437),
     (mozjs_sym_private_property_identifier, 439), (mozjs_sym_this, 441),
     (mozjs_sym_super, 441), (mozjs_sym_true, 441),
     (mozjs_sym_false, 441), (mozjs_sym_null, 441),
     (mozjs_sym_undefined, 443), (mozjs_anon_sym_AT, 93),
     (mozjs_anon_sym_static, 386), (mozjs_anon_sym_get, 386),
     (mozjs_anon_sym_set, 386), (mozjs_sym_html_comment, 5)]"

definition mozjs_parse_row_123 :: "(TSSymbol \<times> nat) list" where
  "mozjs_parse_row_123 =
    [(mozjs_sym_import, 1340), (mozjs_sym_parenthesized_expression, 525),
     (mozjs_sym_expression, 849), (mozjs_sym_primary_expression, 584),
     (mozjs_sym_yield_expression, 638), (mozjs_sym_object, 645),
     (mozjs_sym_object_pattern, 1827), (mozjs_sym_array, 645),
     (mozjs_sym_array_pattern, 1827), (mozjs_sym_jsx_element, 638),
     (mozjs_sym_jsx_opening_element, 1152), (mozjs_sym_jsx_self_closing_element, 638),
     (mozjs_sym_class, 645), (mozjs_sym_function_expression, 645),
     (mozjs_sym_generator_function, 645), (mozjs_sym_arrow_function, 645),
     (mozjs_sym_call_expression, 645), (mozjs_sym_new_expression, 587),
     (mozjs_sym_await_expression, 638), (mozjs_sym_member_expression, 525),
     (mozjs_sym_subscript_expression, 525), (mozjs_sym_assignment_expression, 638),
     (mozjs_sym__augmented_assignment_lhs, 1145), (mozjs_sym_augmented_assignment_expression,
       638),
     (mozjs_sym__destructuring_pattern, 1827), (mozjs_sym_spread_element, 1490),
     (mozjs_sym_ternary_expression, 638), (mozjs_sym_binary_expression, 638),
     (mozjs_sym_unary_expression, 638), (mozjs_sym_update_expression, 638),
     (mozjs_sym_string, 645), (mozjs_sym_template_string, 645),
     (mozjs_sym_regex, 645), (mozjs_sym_meta_property, 645),
     (mozjs_sym_decorator, 1112), (mozjs_sym_formal_parameters, 1777),
     (mozjs_aux_sym_export_statement_repeat1, 1395), (mozjs_sym_identifier, 384),
     (mozjs_anon_sym_export, 386), (mozjs_anon_sym_LBRACE, 388),
     (mozjs_anon_sym_COMMA, 925), (mozjs_anon_sym_import, 390),
     (mozjs_anon_sym_let, 386), (mozjs_anon_sym_await, 392),
     (mozjs_anon_sym_LPAREN, 657), (mozjs_anon_sym_RPAREN, 925),
     (mozjs_anon_sym_yield, 397), (mozjs_anon_sym_LBRACK, 661),
     (mozjs_anon_sym_RBRACK, 925), (mozjs_anon_sym_LT, 827),
     (mozjs_anon_sym_DQUOTE, 407), (mozjs_anon_sym_SQUOTE, 409),
     (mozjs_anon_sym_class, 411), (mozjs_anon_sym_async, 413),
     (mozjs_anon_sym_function, 415), (mozjs_anon_sym_new, 419),
     (mozjs_anon_sym_DOT_DOT_DOT, 923), (mozjs_anon_sym_PLUS, 427),
     (mozjs_anon_sym_DASH, 427), (mozjs_anon_sym_SLASH, 665),
     (mozjs_anon_sym_BANG, 429), (mozjs_anon_sym_TILDE, 429),
     (mozjs_anon_sym_typeof, 427), (mozjs_anon_sym_void, 427),
     (mozjs_anon_sym_delete, 427), (mozjs_anon_sym_PLUS_PLUS, 667),
     (mozjs_anon_sym_DASH_DASH, 667), (mozjs_sym_comment, 5),
     (mozjs_anon_sym_BQUOTE, 669), (mozjs_sym_number, 437),
     (mozjs_sym_private_property_identifier, 439), (mozjs_sym_this, 441),
     (mozjs_sym_super, 441), (mozjs_sym_true, 441),
     (mozjs_sym_false, 441), (mozjs_sym_null, 441),
     (mozjs_sym_undefined, 443), (mozjs_anon_sym_AT, 93),
     (mozjs_anon_sym_static, 386), (mozjs_anon_sym_get, 386),
     (mozjs_anon_sym_set, 386), (mozjs_sym_html_comment, 5)]"

definition mozjs_parse_row_124 :: "(TSSymbol \<times> nat) list" where
  "mozjs_parse_row_124 =
    [(mozjs_sym_import, 1340), (mozjs_sym_parenthesized_expression, 499),
     (mozjs_sym_expression, 985), (mozjs_sym_primary_expression, 584),
     (mozjs_sym_yield_expression, 638), (mozjs_sym_object, 645),
     (mozjs_sym_object_pattern, 1309), (mozjs_sym_assignment_pattern, 1738),
     (mozjs_sym_array, 645), (mozjs_sym_array_pattern, 1309),
     (mozjs_sym_jsx_element, 638), (mozjs_sym_jsx_opening_element, 1152),
     (mozjs_sym_jsx_self_closing_element, 638), (mozjs_sym_class, 645),
     (mozjs_sym_function_expression, 645), (mozjs_sym_generator_function, 645),
     (mozjs_sym_arrow_function, 645), (mozjs_sym_call_expression, 645),
     (mozjs_sym_new_expression, 587), (mozjs_sym_await_expression, 638),
     (mozjs_sym_member_expression, 554), (mozjs_sym_subscript_expression, 554),
     (mozjs_sym_assignment_expression, 638), (mozjs_sym__augmented_assignment_lhs, 1144),
     (mozjs_sym_augmented_assignment_expression, 638), (mozjs_sym__destructuring_pattern, 1309),
     (mozjs_sym_ternary_expression, 638), (mozjs_sym_binary_expression, 638),
     (mozjs_sym_unary_expression, 638), (mozjs_sym_update_expression, 638),
     (mozjs_sym_string, 645), (mozjs_sym_template_string, 645),
     (mozjs_sym_regex, 645), (mozjs_sym_meta_property, 645),
     (mozjs_sym_decorator, 1112), (mozjs_sym_formal_parameters, 1828),
     (mozjs_sym_pattern, 1503), (mozjs_sym_rest_pattern, 1294),
     (mozjs_aux_sym_export_statement_repeat1, 1395), (mozjs_sym_identifier, 879),
     (mozjs_anon_sym_export, 881), (mozjs_anon_sym_LBRACE, 883),
     (mozjs_anon_sym_import, 390), (mozjs_anon_sym_let, 881),
     (mozjs_anon_sym_await, 887), (mozjs_anon_sym_LPAREN, 657),
     (mozjs_anon_sym_RPAREN, 927), (mozjs_anon_sym_yield, 469),
     (mozjs_anon_sym_LBRACK, 889), (mozjs_anon_sym_LT, 827),
     (mozjs_anon_sym_DQUOTE, 407), (mozjs_anon_sym_SQUOTE, 409),
     (mozjs_anon_sym_class, 411), (mozjs_anon_sym_async, 893),
     (mozjs_anon_sym_function, 415), (mozjs_anon_sym_new, 478),
     (mozjs_anon_sym_DOT_DOT_DOT, 895), (mozjs_anon_sym_PLUS, 483),
     (mozjs_anon_sym_DASH, 483), (mozjs_anon_sym_SLASH, 665),
     (mozjs_anon_sym_BANG, 485), (mozjs_anon_sym_TILDE, 485),
     (mozjs_anon_sym_typeof, 483), (mozjs_anon_sym_void, 483),
     (mozjs_anon_sym_delete, 483), (mozjs_anon_sym_PLUS_PLUS, 691),
     (mozjs_anon_sym_DASH_DASH, 691), (mozjs_sym_comment, 5),
     (mozjs_anon_sym_BQUOTE, 669), (mozjs_sym_number, 437),
     (mozjs_sym_private_property_identifier, 490), (mozjs_sym_this, 441),
     (mozjs_sym_super, 441), (mozjs_sym_true, 441),
     (mozjs_sym_false, 441), (mozjs_sym_null, 441),
     (mozjs_sym_undefined, 897), (mozjs_anon_sym_AT, 93),
     (mozjs_anon_sym_static, 881), (mozjs_anon_sym_get, 881),
     (mozjs_anon_sym_set, 881), (mozjs_sym_html_comment, 5)]"

definition mozjs_parse_row_125 :: "(TSSymbol \<times> nat) list" where
  "mozjs_parse_row_125 =
    [(mozjs_sym_import, 1340), (mozjs_sym_parenthesized_expression, 525),
     (mozjs_sym_expression, 851), (mozjs_sym_primary_expression, 584),
     (mozjs_sym_yield_expression, 638), (mozjs_sym_object, 645),
     (mozjs_sym_object_pattern, 1827), (mozjs_sym_array, 645),
     (mozjs_sym_array_pattern, 1827), (mozjs_sym_jsx_element, 638),
     (mozjs_sym_jsx_opening_element, 1152), (mozjs_sym_jsx_self_closing_element, 638),
     (mozjs_sym_class, 645), (mozjs_sym_function_expression, 645),
     (mozjs_sym_generator_function, 645), (mozjs_sym_arrow_function, 645),
     (mozjs_sym_call_expression, 645), (mozjs_sym_new_expression, 587),
     (mozjs_sym_await_expression, 638), (mozjs_sym_member_expression, 525),
     (mozjs_sym_subscript_expression, 525), (mozjs_sym_assignment_expression, 638),
     (mozjs_sym__augmented_assignment_lhs, 1145), (mozjs_sym_augmented_assignment_expression,
       638),
     (mozjs_sym__destructuring_pattern, 1827), (mozjs_sym_spread_element, 1418),
     (mozjs_sym_ternary_expression, 638), (mozjs_sym_binary_expression, 638),
     (mozjs_sym_unary_expression, 638), (mozjs_sym_update_expression, 638),
     (mozjs_sym_string, 645), (mozjs_sym_template_string, 645),
     (mozjs_sym_regex, 645), (mozjs_sym_meta_property, 645),
     (mozjs_sym_decorator, 1112), (mozjs_sym_formal_parameters, 1777),
     (mozjs_aux_sym_export_statement_repeat1, 1395), (mozjs_aux_sym_array_repeat1, 1419),
     (mozjs_sym_identifier, 384), (mozjs_anon_sym_export, 386),
     (mozjs_anon_sym_LBRACE, 388), (mozjs_anon_sym_COMMA, 919),
     (mozjs_anon_sym_import, 390), (mozjs_anon_sym_let, 386),
     (mozjs_anon_sym_await, 392), (mozjs_anon_sym_LPAREN, 657),
     (mozjs_anon_sym_RPAREN, 929), (mozjs_anon_sym_yield, 397),
     (mozjs_anon_sym_LBRACK, 661), (mozjs_anon_sym_LT, 827),
     (mozjs_anon_sym_DQUOTE, 407), (mozjs_anon_sym_SQUOTE, 409),
     (mozjs_anon_sym_class, 411), (mozjs_anon_sym_async, 413),
     (mozjs_anon_sym_function, 415), (mozjs_anon_sym_new, 419),
     (mozjs_anon_sym_DOT_DOT_DOT, 923), (mozjs_anon_sym_PLUS, 427),
     (mozjs_anon_sym_DASH, 427), (mozjs_anon_sym_SLASH, 665),
     (mozjs_anon_sym_BANG, 429), (mozjs_anon_sym_TILDE, 429),
     (mozjs_anon_sym_typeof, 427), (mozjs_anon_sym_void, 427),
     (mozjs_anon_sym_delete, 427), (mozjs_anon_sym_PLUS_PLUS, 667),
     (mozjs_anon_sym_DASH_DASH, 667), (mozjs_sym_comment, 5),
     (mozjs_anon_sym_BQUOTE, 669), (mozjs_sym_number, 437),
     (mozjs_sym_private_property_identifier, 439), (mozjs_sym_this, 441),
     (mozjs_sym_super, 441), (mozjs_sym_true, 441),
     (mozjs_sym_false, 441), (mozjs_sym_null, 441),
     (mozjs_sym_undefined, 443), (mozjs_anon_sym_AT, 93),
     (mozjs_anon_sym_static, 386), (mozjs_anon_sym_get, 386),
     (mozjs_anon_sym_set, 386), (mozjs_sym_html_comment, 5)]"

definition mozjs_parse_row_126 :: "(TSSymbol \<times> nat) list" where
  "mozjs_parse_row_126 =
    [(mozjs_sym_import, 1340), (mozjs_sym_parenthesized_expression, 499),
     (mozjs_sym_expression, 985), (mozjs_sym_primary_expression, 584),
     (mozjs_sym_yield_expression, 638), (mozjs_sym_object, 645),
     (mozjs_sym_object_pattern, 1309), (mozjs_sym_assignment_pattern, 1738),
     (mozjs_sym_array, 645), (mozjs_sym_array_pattern, 1309),
     (mozjs_sym_jsx_element, 638), (mozjs_sym_jsx_opening_element, 1152),
     (mozjs_sym_jsx_self_closing_element, 638), (mozjs_sym_class, 645),
     (mozjs_sym_function_expression, 645), (mozjs_sym_generator_function, 645),
     (mozjs_sym_arrow_function, 645), (mozjs_sym_call_expression, 645),
     (mozjs_sym_new_expression, 587), (mozjs_sym_await_expression, 638),
     (mozjs_sym_member_expression, 554), (mozjs_sym_subscript_expression, 554),
     (mozjs_sym_assignment_expression, 638), (mozjs_sym__augmented_assignment_lhs, 1144),
     (mozjs_sym_augmented_assignment_expression, 638), (mozjs_sym__destructuring_pattern, 1309),
     (mozjs_sym_ternary_expression, 638), (mozjs_sym_binary_expression, 638),
     (mozjs_sym_unary_expression, 638), (mozjs_sym_update_expression, 638),
     (mozjs_sym_string, 645), (mozjs_sym_template_string, 645),
     (mozjs_sym_regex, 645), (mozjs_sym_meta_property, 645),
     (mozjs_sym_decorator, 1112), (mozjs_sym_formal_parameters, 1828),
     (mozjs_sym_pattern, 1503), (mozjs_sym_rest_pattern, 1294),
     (mozjs_aux_sym_export_statement_repeat1, 1395), (mozjs_sym_identifier, 879),
     (mozjs_anon_sym_export, 881), (mozjs_anon_sym_LBRACE, 883),
     (mozjs_anon_sym_import, 390), (mozjs_anon_sym_let, 881),
     (mozjs_anon_sym_await, 887), (mozjs_anon_sym_LPAREN, 657),
     (mozjs_anon_sym_RPAREN, 931), (mozjs_anon_sym_yield, 469),
     (mozjs_anon_sym_LBRACK, 889), (mozjs_anon_sym_LT, 827),
     (mozjs_anon_sym_DQUOTE, 407), (mozjs_anon_sym_SQUOTE, 409),
     (mozjs_anon_sym_class, 411), (mozjs_anon_sym_async, 893),
     (mozjs_anon_sym_function, 415), (mozjs_anon_sym_new, 478),
     (mozjs_anon_sym_DOT_DOT_DOT, 895), (mozjs_anon_sym_PLUS, 483),
     (mozjs_anon_sym_DASH, 483), (mozjs_anon_sym_SLASH, 665),
     (mozjs_anon_sym_BANG, 485), (mozjs_anon_sym_TILDE, 485),
     (mozjs_anon_sym_typeof, 483), (mozjs_anon_sym_void, 483),
     (mozjs_anon_sym_delete, 483), (mozjs_anon_sym_PLUS_PLUS, 691),
     (mozjs_anon_sym_DASH_DASH, 691), (mozjs_sym_comment, 5),
     (mozjs_anon_sym_BQUOTE, 669), (mozjs_sym_number, 437),
     (mozjs_sym_private_property_identifier, 490), (mozjs_sym_this, 441),
     (mozjs_sym_super, 441), (mozjs_sym_true, 441),
     (mozjs_sym_false, 441), (mozjs_sym_null, 441),
     (mozjs_sym_undefined, 897), (mozjs_anon_sym_AT, 93),
     (mozjs_anon_sym_static, 881), (mozjs_anon_sym_get, 881),
     (mozjs_anon_sym_set, 881), (mozjs_sym_html_comment, 5)]"

definition mozjs_parse_row_127 :: "(TSSymbol \<times> nat) list" where
  "mozjs_parse_row_127 =
    [(mozjs_sym_import, 1340), (mozjs_sym_parenthesized_expression, 499),
     (mozjs_sym_expression, 985), (mozjs_sym_primary_expression, 584),
     (mozjs_sym_yield_expression, 638), (mozjs_sym_object, 645),
     (mozjs_sym_object_pattern, 1309), (mozjs_sym_assignment_pattern, 1469),
     (mozjs_sym_array, 645), (mozjs_sym_array_pattern, 1309),
     (mozjs_sym_jsx_element, 638), (mozjs_sym_jsx_opening_element, 1152),
     (mozjs_sym_jsx_self_closing_element, 638), (mozjs_sym_class, 645),
     (mozjs_sym_function_expression, 645), (mozjs_sym_generator_function, 645),
     (mozjs_sym_arrow_function, 645), (mozjs_sym_call_expression, 645),
     (mozjs_sym_new_expression, 587), (mozjs_sym_await_expression, 638),
     (mozjs_sym_member_expression, 554), (mozjs_sym_subscript_expression, 554),
     (mozjs_sym_assignment_expression, 638), (mozjs_sym__augmented_assignment_lhs, 1144),
     (mozjs_sym_augmented_assignment_expression, 638), (mozjs_sym__destructuring_pattern, 1309),
     (mozjs_sym_ternary_expression, 638), (mozjs_sym_binary_expression, 638),
     (mozjs_sym_unary_expression, 638), (mozjs_sym_update_expression, 638),
     (mozjs_sym_string, 645), (mozjs_sym_template_string, 645),
     (mozjs_sym_regex, 645), (mozjs_sym_meta_property, 645),
     (mozjs_sym_decorator, 1112), (mozjs_sym_formal_parameters, 1828),
     (mozjs_sym_pattern, 1373), (mozjs_sym_rest_pattern, 1294),
     (mozjs_aux_sym_export_statement_repeat1, 1395), (mozjs_sym_identifier, 879),
     (mozjs_anon_sym_export, 881), (mozjs_anon_sym_LBRACE, 883),
     (mozjs_anon_sym_import, 390), (mozjs_anon_sym_let, 881),
     (mozjs_anon_sym_await, 887), (mozjs_anon_sym_LPAREN, 657),
     (mozjs_anon_sym_RPAREN, 915), (mozjs_anon_sym_yield, 469),
     (mozjs_anon_sym_LBRACK, 889), (mozjs_anon_sym_LT, 827),
     (mozjs_anon_sym_DQUOTE, 407), (mozjs_anon_sym_SQUOTE, 409),
     (mozjs_anon_sym_class, 411), (mozjs_anon_sym_async, 893),
     (mozjs_anon_sym_function, 415), (mozjs_anon_sym_new, 478),
     (mozjs_anon_sym_DOT_DOT_DOT, 895), (mozjs_anon_sym_PLUS, 483),
     (mozjs_anon_sym_DASH, 483), (mozjs_anon_sym_SLASH, 665),
     (mozjs_anon_sym_BANG, 485), (mozjs_anon_sym_TILDE, 485),
     (mozjs_anon_sym_typeof, 483), (mozjs_anon_sym_void, 483),
     (mozjs_anon_sym_delete, 483), (mozjs_anon_sym_PLUS_PLUS, 691),
     (mozjs_anon_sym_DASH_DASH, 691), (mozjs_sym_comment, 5),
     (mozjs_anon_sym_BQUOTE, 669), (mozjs_sym_number, 437),
     (mozjs_sym_private_property_identifier, 490), (mozjs_sym_this, 441),
     (mozjs_sym_super, 441), (mozjs_sym_true, 441),
     (mozjs_sym_false, 441), (mozjs_sym_null, 441),
     (mozjs_sym_undefined, 897), (mozjs_anon_sym_AT, 93),
     (mozjs_anon_sym_static, 881), (mozjs_anon_sym_get, 881),
     (mozjs_anon_sym_set, 881), (mozjs_sym_html_comment, 5)]"

definition mozjs_parse_row_128 :: "(TSSymbol \<times> nat) list" where
  "mozjs_parse_row_128 =
    [(mozjs_sym_import, 1340), (mozjs_sym_parenthesized_expression, 525),
     (mozjs_sym_expression, 870), (mozjs_sym_primary_expression, 584),
     (mozjs_sym_yield_expression, 638), (mozjs_sym_object, 645),
     (mozjs_sym_object_pattern, 1827), (mozjs_sym_array, 645),
     (mozjs_sym_array_pattern, 1827), (mozjs_sym_jsx_element, 638),
     (mozjs_sym_jsx_opening_element, 1152), (mozjs_sym_jsx_self_closing_element, 638),
     (mozjs_sym_class, 645), (mozjs_sym_function_expression, 645),
     (mozjs_sym_generator_function, 645), (mozjs_sym_arrow_function, 645),
     (mozjs_sym_call_expression, 645), (mozjs_sym_new_expression, 587),
     (mozjs_sym_await_expression, 638), (mozjs_sym_member_expression, 525),
     (mozjs_sym_subscript_expression, 525), (mozjs_sym_assignment_expression, 638),
     (mozjs_sym__augmented_assignment_lhs, 1145), (mozjs_sym_augmented_assignment_expression,
       638),
     (mozjs_sym__destructuring_pattern, 1827), (mozjs_sym_spread_element, 1437),
     (mozjs_sym_ternary_expression, 638), (mozjs_sym_binary_expression, 638),
     (mozjs_sym_unary_expression, 638), (mozjs_sym_update_expression, 638),
     (mozjs_sym_string, 645), (mozjs_sym_template_string, 645),
     (mozjs_sym_regex, 645), (mozjs_sym_meta_property, 645),
     (mozjs_sym_decorator, 1112), (mozjs_sym_formal_parameters, 1777),
     (mozjs_aux_sym_export_statement_repeat1, 1395), (mozjs_aux_sym_array_repeat1, 1438),
     (mozjs_sym_identifier, 384), (mozjs_anon_sym_export, 386),
     (mozjs_anon_sym_LBRACE, 388), (mozjs_anon_sym_COMMA, 919),
     (mozjs_anon_sym_import, 390), (mozjs_anon_sym_let, 386),
     (mozjs_anon_sym_await, 392), (mozjs_anon_sym_LPAREN, 657),
     (mozjs_anon_sym_RPAREN, 933), (mozjs_anon_sym_yield, 397),
     (mozjs_anon_sym_LBRACK, 661), (mozjs_anon_sym_LT, 827),
     (mozjs_anon_sym_DQUOTE, 407), (mozjs_anon_sym_SQUOTE, 409),
     (mozjs_anon_sym_class, 411), (mozjs_anon_sym_async, 413),
     (mozjs_anon_sym_function, 415), (mozjs_anon_sym_new, 419),
     (mozjs_anon_sym_DOT_DOT_DOT, 923), (mozjs_anon_sym_PLUS, 427),
     (mozjs_anon_sym_DASH, 427), (mozjs_anon_sym_SLASH, 665),
     (mozjs_anon_sym_BANG, 429), (mozjs_anon_sym_TILDE, 429),
     (mozjs_anon_sym_typeof, 427), (mozjs_anon_sym_void, 427),
     (mozjs_anon_sym_delete, 427), (mozjs_anon_sym_PLUS_PLUS, 667),
     (mozjs_anon_sym_DASH_DASH, 667), (mozjs_sym_comment, 5),
     (mozjs_anon_sym_BQUOTE, 669), (mozjs_sym_number, 437),
     (mozjs_sym_private_property_identifier, 439), (mozjs_sym_this, 441),
     (mozjs_sym_super, 441), (mozjs_sym_true, 441),
     (mozjs_sym_false, 441), (mozjs_sym_null, 441),
     (mozjs_sym_undefined, 443), (mozjs_anon_sym_AT, 93),
     (mozjs_anon_sym_static, 386), (mozjs_anon_sym_get, 386),
     (mozjs_anon_sym_set, 386), (mozjs_sym_html_comment, 5)]"

definition mozjs_parse_row_129 :: "(TSSymbol \<times> nat) list" where
  "mozjs_parse_row_129 =
    [(mozjs_sym_namespace_export, 1633), (mozjs_sym_export_clause, 1400),
     (mozjs_sym_declaration, 441), (mozjs_sym_variable_declaration, 427),
     (mozjs_sym_lexical_declaration, 427), (mozjs_sym_using_declaration, 427),
     (mozjs_sym_class_declaration, 427), (mozjs_sym_function_declaration, 427),
     (mozjs_sym_generator_function_declaration, 427), (mozjs_sym_decorator, 1112),
     (mozjs_aux_sym_export_statement_repeat1, 1355), (mozjs_aux_sym_object_repeat1, 1442),
     (mozjs_aux_sym_object_pattern_repeat1, 1414), (mozjs_anon_sym_STAR, 935),
     (mozjs_anon_sym_default, 937), (mozjs_anon_sym_LBRACE, 939),
     (mozjs_anon_sym_COMMA, 311), (mozjs_anon_sym_RBRACE, 372),
     (mozjs_anon_sym_var, 941), (mozjs_anon_sym_let, 943),
     (mozjs_anon_sym_const, 943), (mozjs_anon_sym_using, 945),
     (mozjs_anon_sym_await, 947), (mozjs_anon_sym_LPAREN, 949),
     (mozjs_anon_sym_SEMI, 311), (mozjs_anon_sym_in, 307),
     (mozjs_anon_sym_COLON, 325), (mozjs_anon_sym_EQ, 328),
     (mozjs_anon_sym_LBRACK, 311), (mozjs_anon_sym_LT, 307),
     (mozjs_anon_sym_GT, 307), (mozjs_anon_sym_DOT, 311),
     (mozjs_anon_sym_class, 952), (mozjs_anon_sym_async, 954),
     (mozjs_anon_sym_function, 956), (mozjs_anon_sym_EQ_GT, 342),
     (mozjs_sym_optional_chain, 311), (mozjs_anon_sym_PLUS_EQ, 344),
     (mozjs_anon_sym_DASH_EQ, 344), (mozjs_anon_sym_STAR_EQ, 344),
     (mozjs_anon_sym_SLASH_EQ, 344), (mozjs_anon_sym_PERCENT_EQ, 344),
     (mozjs_anon_sym_CARET_EQ, 344), (mozjs_anon_sym_AMP_EQ, 344),
     (mozjs_anon_sym_PIPE_EQ, 344), (mozjs_anon_sym_GT_GT_EQ, 344),
     (mozjs_anon_sym_GT_GT_GT_EQ, 344), (mozjs_anon_sym_LT_LT_EQ, 344),
     (mozjs_anon_sym_STAR_STAR_EQ, 344), (mozjs_anon_sym_AMP_AMP_EQ, 344),
     (mozjs_anon_sym_PIPE_PIPE_EQ, 344), (mozjs_anon_sym_QMARK_QMARK_EQ, 344),
     (mozjs_anon_sym_AMP_AMP, 307), (mozjs_anon_sym_PIPE_PIPE, 307),
     (mozjs_anon_sym_GT_GT, 307), (mozjs_anon_sym_GT_GT_GT, 307),
     (mozjs_anon_sym_LT_LT, 307), (mozjs_anon_sym_AMP, 307),
     (mozjs_anon_sym_CARET, 307), (mozjs_anon_sym_PIPE, 307),
     (mozjs_anon_sym_PLUS, 307), (mozjs_anon_sym_DASH, 307),
     (mozjs_anon_sym_SLASH, 307), (mozjs_anon_sym_PERCENT, 307),
     (mozjs_anon_sym_STAR_STAR, 307), (mozjs_anon_sym_LT_EQ, 311),
     (mozjs_anon_sym_EQ_EQ, 307), (mozjs_anon_sym_EQ_EQ_EQ, 311),
     (mozjs_anon_sym_BANG_EQ, 307), (mozjs_anon_sym_BANG_EQ_EQ, 311),
     (mozjs_anon_sym_GT_EQ, 311), (mozjs_anon_sym_QMARK_QMARK, 307),
     (mozjs_anon_sym_instanceof, 311), (mozjs_anon_sym_PLUS_PLUS, 311),
     (mozjs_anon_sym_DASH_DASH, 311), (mozjs_sym_comment, 5),
     (mozjs_anon_sym_BQUOTE, 311), (mozjs_anon_sym_AT, 93),
     (mozjs_sym__automatic_semicolon, 311), (mozjs_sym__ternary_qmark, 311),
     (mozjs_sym_html_comment, 5)]"

definition mozjs_parse_row_130 :: "(TSSymbol \<times> nat) list" where
  "mozjs_parse_row_130 =
    [(mozjs_sym_import, 1340), (mozjs_sym_parenthesized_expression, 525),
     (mozjs_sym_expression, 906), (mozjs_sym_primary_expression, 584),
     (mozjs_sym_yield_expression, 638), (mozjs_sym_object, 645),
     (mozjs_sym_object_pattern, 1287), (mozjs_sym_assignment_pattern, 1646),
     (mozjs_sym_array, 645), (mozjs_sym_array_pattern, 1287),
     (mozjs_sym_jsx_element, 638), (mozjs_sym_jsx_opening_element, 1152),
     (mozjs_sym_jsx_self_closing_element, 638), (mozjs_sym_class, 645),
     (mozjs_sym_function_expression, 645), (mozjs_sym_generator_function, 645),
     (mozjs_sym_arrow_function, 645), (mozjs_sym_call_expression, 645),
     (mozjs_sym_new_expression, 587), (mozjs_sym_await_expression, 638),
     (mozjs_sym_member_expression, 555), (mozjs_sym_subscript_expression, 555),
     (mozjs_sym_assignment_expression, 638), (mozjs_sym__augmented_assignment_lhs, 1145),
     (mozjs_sym_augmented_assignment_expression, 638), (mozjs_sym__destructuring_pattern, 1287),
     (mozjs_sym_ternary_expression, 638), (mozjs_sym_binary_expression, 638),
     (mozjs_sym_unary_expression, 638), (mozjs_sym_update_expression, 638),
     (mozjs_sym_string, 645), (mozjs_sym_template_string, 645),
     (mozjs_sym_regex, 645), (mozjs_sym_meta_property, 645),
     (mozjs_sym_decorator, 1112), (mozjs_sym_formal_parameters, 1777),
     (mozjs_sym_pattern, 1479), (mozjs_sym_rest_pattern, 1294),
     (mozjs_aux_sym_export_statement_repeat1, 1395), (mozjs_sym_identifier, 817),
     (mozjs_anon_sym_export, 819), (mozjs_anon_sym_LBRACE, 465),
     (mozjs_anon_sym_import, 390), (mozjs_anon_sym_let, 819),
     (mozjs_anon_sym_await, 823), (mozjs_anon_sym_LPAREN, 657),
     (mozjs_anon_sym_yield, 397), (mozjs_anon_sym_LBRACK, 683),
     (mozjs_anon_sym_LT, 827), (mozjs_anon_sym_DQUOTE, 407),
     (mozjs_anon_sym_SQUOTE, 409), (mozjs_anon_sym_class, 411),
     (mozjs_anon_sym_async, 829), (mozjs_anon_sym_function, 415),
     (mozjs_anon_sym_new, 419), (mozjs_anon_sym_DOT_DOT_DOT, 895),
     (mozjs_anon_sym_PLUS, 427), (mozjs_anon_sym_DASH, 427),
     (mozjs_anon_sym_SLASH, 665), (mozjs_anon_sym_BANG, 429),
     (mozjs_anon_sym_TILDE, 429), (mozjs_anon_sym_typeof, 427),
     (mozjs_anon_sym_void, 427), (mozjs_anon_sym_delete, 427),
     (mozjs_anon_sym_PLUS_PLUS, 667), (mozjs_anon_sym_DASH_DASH, 667),
     (mozjs_sym_comment, 5), (mozjs_anon_sym_BQUOTE, 669),
     (mozjs_sym_number, 437), (mozjs_sym_private_property_identifier, 439),
     (mozjs_sym_this, 441), (mozjs_sym_super, 441),
     (mozjs_sym_true, 441), (mozjs_sym_false, 441),
     (mozjs_sym_null, 441), (mozjs_sym_undefined, 831),
     (mozjs_anon_sym_AT, 93), (mozjs_anon_sym_static, 819),
     (mozjs_anon_sym_get, 819), (mozjs_anon_sym_set, 819),
     (mozjs_sym_html_comment, 5)]"

definition mozjs_parse_row_131 :: "(TSSymbol \<times> nat) list" where
  "mozjs_parse_row_131 =
    [(mozjs_sym_import, 1340), (mozjs_sym_parenthesized_expression, 499),
     (mozjs_sym_expression, 985), (mozjs_sym_primary_expression, 584),
     (mozjs_sym_yield_expression, 638), (mozjs_sym_object, 645),
     (mozjs_sym_object_pattern, 1309), (mozjs_sym_assignment_pattern, 1646),
     (mozjs_sym_array, 645), (mozjs_sym_array_pattern, 1309),
     (mozjs_sym_jsx_element, 638), (mozjs_sym_jsx_opening_element, 1152),
     (mozjs_sym_jsx_self_closing_element, 638), (mozjs_sym_class, 645),
     (mozjs_sym_function_expression, 645), (mozjs_sym_generator_function, 645),
     (mozjs_sym_arrow_function, 645), (mozjs_sym_call_expression, 645),
     (mozjs_sym_new_expression, 587), (mozjs_sym_await_expression, 638),
     (mozjs_sym_member_expression, 554), (mozjs_sym_subscript_expression, 554),
     (mozjs_sym_assignment_expression, 638), (mozjs_sym__augmented_assignment_lhs, 1144),
     (mozjs_sym_augmented_assignment_expression, 638), (mozjs_sym__destructuring_pattern, 1309),
     (mozjs_sym_ternary_expression, 638), (mozjs_sym_binary_expression, 638),
     (mozjs_sym_unary_expression, 638), (mozjs_sym_update_expression, 638),
     (mozjs_sym_string, 645), (mozjs_sym_template_string, 645),
     (mozjs_sym_regex, 645), (mozjs_sym_meta_property, 645),
     (mozjs_sym_decorator, 1112), (mozjs_sym_formal_parameters, 1828),
     (mozjs_sym_pattern, 1479), (mozjs_sym_rest_pattern, 1294),
     (mozjs_aux_sym_export_statement_repeat1, 1395), (mozjs_sym_identifier, 879),
     (mozjs_anon_sym_export, 881), (mozjs_anon_sym_LBRACE, 883),
     (mozjs_anon_sym_import, 390), (mozjs_anon_sym_let, 881),
     (mozjs_anon_sym_await, 887), (mozjs_anon_sym_LPAREN, 657),
     (mozjs_anon_sym_yield, 469), (mozjs_anon_sym_LBRACK, 889),
     (mozjs_anon_sym_LT, 827), (mozjs_anon_sym_DQUOTE, 407),
     (mozjs_anon_sym_SQUOTE, 409), (mozjs_anon_sym_class, 411),
     (mozjs_anon_sym_async, 893), (mozjs_anon_sym_function, 415),
     (mozjs_anon_sym_new, 478), (mozjs_anon_sym_DOT_DOT_DOT, 895),
     (mozjs_anon_sym_PLUS, 483), (mozjs_anon_sym_DASH, 483),
     (mozjs_anon_sym_SLASH, 665), (mozjs_anon_sym_BANG, 485),
     (mozjs_anon_sym_TILDE, 485), (mozjs_anon_sym_typeof, 483),
     (mozjs_anon_sym_void, 483), (mozjs_anon_sym_delete, 483),
     (mozjs_anon_sym_PLUS_PLUS, 691), (mozjs_anon_sym_DASH_DASH, 691),
     (mozjs_sym_comment, 5), (mozjs_anon_sym_BQUOTE, 669),
     (mozjs_sym_number, 437), (mozjs_sym_private_property_identifier, 490),
     (mozjs_sym_this, 441), (mozjs_sym_super, 441),
     (mozjs_sym_true, 441), (mozjs_sym_false, 441),
     (mozjs_sym_null, 441), (mozjs_sym_undefined, 897),
     (mozjs_anon_sym_AT, 93), (mozjs_anon_sym_static, 881),
     (mozjs_anon_sym_get, 881), (mozjs_anon_sym_set, 881),
     (mozjs_sym_html_comment, 5)]"

definition mozjs_parse_row_132 :: "(TSSymbol \<times> nat) list" where
  "mozjs_parse_row_132 =
    [(mozjs_sym_import, 1340), (mozjs_sym_parenthesized_expression, 525),
     (mozjs_sym_expression, 854), (mozjs_sym_primary_expression, 584),
     (mozjs_sym_yield_expression, 638), (mozjs_sym_object, 645),
     (mozjs_sym_object_pattern, 1827), (mozjs_sym_array, 645),
     (mozjs_sym_array_pattern, 1827), (mozjs_sym_jsx_element, 638),
     (mozjs_sym_jsx_opening_element, 1152), (mozjs_sym_jsx_self_closing_element, 638),
     (mozjs_sym_class, 645), (mozjs_sym_function_expression, 645),
     (mozjs_sym_generator_function, 645), (mozjs_sym_arrow_function, 645),
     (mozjs_sym_call_expression, 645), (mozjs_sym_new_expression, 587),
     (mozjs_sym_await_expression, 638), (mozjs_sym_member_expression, 525),
     (mozjs_sym_subscript_expression, 525), (mozjs_sym_assignment_expression, 638),
     (mozjs_sym__augmented_assignment_lhs, 1145), (mozjs_sym_augmented_assignment_expression,
       638),
     (mozjs_sym__destructuring_pattern, 1827), (mozjs_sym_spread_element, 1875),
     (mozjs_sym_ternary_expression, 638), (mozjs_sym_binary_expression, 638),
     (mozjs_sym_unary_expression, 638), (mozjs_sym_update_expression, 638),
     (mozjs_sym_sequence_expression, 1875), (mozjs_sym_string, 645),
     (mozjs_sym_template_string, 645), (mozjs_sym_regex, 645),
     (mozjs_sym_meta_property, 645), (mozjs_sym_decorator, 1112),
     (mozjs_sym_formal_parameters, 1777), (mozjs_aux_sym_export_statement_repeat1, 1395),
     (mozjs_sym_identifier, 384), (mozjs_anon_sym_export, 386),
     (mozjs_anon_sym_LBRACE, 388), (mozjs_anon_sym_RBRACE, 958),
     (mozjs_anon_sym_import, 390), (mozjs_anon_sym_let, 386),
     (mozjs_anon_sym_await, 392), (mozjs_anon_sym_LPAREN, 657),
     (mozjs_anon_sym_yield, 397), (mozjs_anon_sym_LBRACK, 661),
     (mozjs_anon_sym_LT, 827), (mozjs_anon_sym_DQUOTE, 407),
     (mozjs_anon_sym_SQUOTE, 409), (mozjs_anon_sym_class, 411),
     (mozjs_anon_sym_async, 413), (mozjs_anon_sym_function, 415),
     (mozjs_anon_sym_new, 419), (mozjs_anon_sym_DOT_DOT_DOT, 923),
     (mozjs_anon_sym_PLUS, 427), (mozjs_anon_sym_DASH, 427),
     (mozjs_anon_sym_SLASH, 665), (mozjs_anon_sym_BANG, 429),
     (mozjs_anon_sym_TILDE, 429), (mozjs_anon_sym_typeof, 427),
     (mozjs_anon_sym_void, 427), (mozjs_anon_sym_delete, 427),
     (mozjs_anon_sym_PLUS_PLUS, 667), (mozjs_anon_sym_DASH_DASH, 667),
     (mozjs_sym_comment, 5), (mozjs_anon_sym_BQUOTE, 669),
     (mozjs_sym_number, 437), (mozjs_sym_private_property_identifier, 439),
     (mozjs_sym_this, 441), (mozjs_sym_super, 441),
     (mozjs_sym_true, 441), (mozjs_sym_false, 441),
     (mozjs_sym_null, 441), (mozjs_sym_undefined, 443),
     (mozjs_anon_sym_AT, 93), (mozjs_anon_sym_static, 386),
     (mozjs_anon_sym_get, 386), (mozjs_anon_sym_set, 386),
     (mozjs_sym_html_comment, 5)]"

definition mozjs_parse_row_133 :: "(TSSymbol \<times> nat) list" where
  "mozjs_parse_row_133 =
    [(mozjs_sym_import, 1340), (mozjs_sym_parenthesized_expression, 525),
     (mozjs_sym_expression, 865), (mozjs_sym_primary_expression, 584),
     (mozjs_sym_yield_expression, 638), (mozjs_sym_object, 645),
     (mozjs_sym_object_pattern, 1827), (mozjs_sym_array, 645),
     (mozjs_sym_array_pattern, 1827), (mozjs_sym_jsx_element, 638),
     (mozjs_sym_jsx_opening_element, 1152), (mozjs_sym_jsx_self_closing_element, 638),
     (mozjs_sym_class, 645), (mozjs_sym_function_expression, 645),
     (mozjs_sym_generator_function, 645), (mozjs_sym_arrow_function, 645),
     (mozjs_sym_call_expression, 645), (mozjs_sym_new_expression, 587),
     (mozjs_sym_await_expression, 638), (mozjs_sym_member_expression, 525),
     (mozjs_sym_subscript_expression, 525), (mozjs_sym_assignment_expression, 638),
     (mozjs_sym__augmented_assignment_lhs, 1145), (mozjs_sym_augmented_assignment_expression,
       638),
     (mozjs_sym__destructuring_pattern, 1827), (mozjs_sym_spread_element, 1804),
     (mozjs_sym_ternary_expression, 638), (mozjs_sym_binary_expression, 638),
     (mozjs_sym_unary_expression, 638), (mozjs_sym_update_expression, 638),
     (mozjs_sym_sequence_expression, 1804), (mozjs_sym_string, 645),
     (mozjs_sym_template_string, 645), (mozjs_sym_regex, 645),
     (mozjs_sym_meta_property, 645), (mozjs_sym_decorator, 1112),
     (mozjs_sym_formal_parameters, 1777), (mozjs_aux_sym_export_statement_repeat1, 1395),
     (mozjs_sym_identifier, 384), (mozjs_anon_sym_export, 386),
     (mozjs_anon_sym_LBRACE, 388), (mozjs_anon_sym_RBRACE, 960),
     (mozjs_anon_sym_import, 390), (mozjs_anon_sym_let, 386),
     (mozjs_anon_sym_await, 392), (mozjs_anon_sym_LPAREN, 657),
     (mozjs_anon_sym_yield, 397), (mozjs_anon_sym_LBRACK, 661),
     (mozjs_anon_sym_LT, 827), (mozjs_anon_sym_DQUOTE, 407),
     (mozjs_anon_sym_SQUOTE, 409), (mozjs_anon_sym_class, 411),
     (mozjs_anon_sym_async, 413), (mozjs_anon_sym_function, 415),
     (mozjs_anon_sym_new, 419), (mozjs_anon_sym_DOT_DOT_DOT, 923),
     (mozjs_anon_sym_PLUS, 427), (mozjs_anon_sym_DASH, 427),
     (mozjs_anon_sym_SLASH, 665), (mozjs_anon_sym_BANG, 429),
     (mozjs_anon_sym_TILDE, 429), (mozjs_anon_sym_typeof, 427),
     (mozjs_anon_sym_void, 427), (mozjs_anon_sym_delete, 427),
     (mozjs_anon_sym_PLUS_PLUS, 667), (mozjs_anon_sym_DASH_DASH, 667),
     (mozjs_sym_comment, 5), (mozjs_anon_sym_BQUOTE, 669),
     (mozjs_sym_number, 437), (mozjs_sym_private_property_identifier, 439),
     (mozjs_sym_this, 441), (mozjs_sym_super, 441),
     (mozjs_sym_true, 441), (mozjs_sym_false, 441),
     (mozjs_sym_null, 441), (mozjs_sym_undefined, 443),
     (mozjs_anon_sym_AT, 93), (mozjs_anon_sym_static, 386),
     (mozjs_anon_sym_get, 386), (mozjs_anon_sym_set, 386),
     (mozjs_sym_html_comment, 5)]"

definition mozjs_parse_row_134 :: "(TSSymbol \<times> nat) list" where
  "mozjs_parse_row_134 =
    [(mozjs_sym_namespace_export, 1633), (mozjs_sym_export_clause, 1400),
     (mozjs_sym_declaration, 441), (mozjs_sym_variable_declaration, 427),
     (mozjs_sym_lexical_declaration, 427), (mozjs_sym_using_declaration, 427),
     (mozjs_sym_class_declaration, 427), (mozjs_sym_function_declaration, 427),
     (mozjs_sym_generator_function_declaration, 427), (mozjs_sym_decorator, 1112),
     (mozjs_aux_sym_export_statement_repeat1, 1355), (mozjs_aux_sym_object_repeat1, 1442),
     (mozjs_aux_sym_object_pattern_repeat1, 1414), (mozjs_anon_sym_STAR, 935),
     (mozjs_anon_sym_default, 937), (mozjs_anon_sym_LBRACE, 939),
     (mozjs_anon_sym_COMMA, 311), (mozjs_anon_sym_RBRACE, 374),
     (mozjs_anon_sym_var, 941), (mozjs_anon_sym_let, 943),
     (mozjs_anon_sym_const, 943), (mozjs_anon_sym_using, 945),
     (mozjs_anon_sym_await, 947), (mozjs_anon_sym_LPAREN, 949),
     (mozjs_anon_sym_SEMI, 311), (mozjs_anon_sym_in, 307),
     (mozjs_anon_sym_COLON, 325), (mozjs_anon_sym_EQ, 328),
     (mozjs_anon_sym_LBRACK, 311), (mozjs_anon_sym_LT, 307),
     (mozjs_anon_sym_GT, 307), (mozjs_anon_sym_DOT, 311),
     (mozjs_anon_sym_class, 952), (mozjs_anon_sym_async, 954),
     (mozjs_anon_sym_function, 956), (mozjs_anon_sym_EQ_GT, 342),
     (mozjs_sym_optional_chain, 311), (mozjs_anon_sym_PLUS_EQ, 344),
     (mozjs_anon_sym_DASH_EQ, 344), (mozjs_anon_sym_STAR_EQ, 344),
     (mozjs_anon_sym_SLASH_EQ, 344), (mozjs_anon_sym_PERCENT_EQ, 344),
     (mozjs_anon_sym_CARET_EQ, 344), (mozjs_anon_sym_AMP_EQ, 344),
     (mozjs_anon_sym_PIPE_EQ, 344), (mozjs_anon_sym_GT_GT_EQ, 344),
     (mozjs_anon_sym_GT_GT_GT_EQ, 344), (mozjs_anon_sym_LT_LT_EQ, 344),
     (mozjs_anon_sym_STAR_STAR_EQ, 344), (mozjs_anon_sym_AMP_AMP_EQ, 344),
     (mozjs_anon_sym_PIPE_PIPE_EQ, 344), (mozjs_anon_sym_QMARK_QMARK_EQ, 344),
     (mozjs_anon_sym_AMP_AMP, 307), (mozjs_anon_sym_PIPE_PIPE, 307),
     (mozjs_anon_sym_GT_GT, 307), (mozjs_anon_sym_GT_GT_GT, 307),
     (mozjs_anon_sym_LT_LT, 307), (mozjs_anon_sym_AMP, 307),
     (mozjs_anon_sym_CARET, 307), (mozjs_anon_sym_PIPE, 307),
     (mozjs_anon_sym_PLUS, 307), (mozjs_anon_sym_DASH, 307),
     (mozjs_anon_sym_SLASH, 307), (mozjs_anon_sym_PERCENT, 307),
     (mozjs_anon_sym_STAR_STAR, 307), (mozjs_anon_sym_LT_EQ, 311),
     (mozjs_anon_sym_EQ_EQ, 307), (mozjs_anon_sym_EQ_EQ_EQ, 311),
     (mozjs_anon_sym_BANG_EQ, 307), (mozjs_anon_sym_BANG_EQ_EQ, 311),
     (mozjs_anon_sym_GT_EQ, 311), (mozjs_anon_sym_QMARK_QMARK, 307),
     (mozjs_anon_sym_instanceof, 311), (mozjs_anon_sym_PLUS_PLUS, 311),
     (mozjs_anon_sym_DASH_DASH, 311), (mozjs_sym_comment, 5),
     (mozjs_anon_sym_BQUOTE, 311), (mozjs_anon_sym_AT, 93),
     (mozjs_sym__automatic_semicolon, 311), (mozjs_sym__ternary_qmark, 311),
     (mozjs_sym_html_comment, 5)]"

definition mozjs_parse_row_135 :: "(TSSymbol \<times> nat) list" where
  "mozjs_parse_row_135 =
    [(mozjs_sym_namespace_export, 1633), (mozjs_sym_export_clause, 1400),
     (mozjs_sym_declaration, 441), (mozjs_sym_variable_declaration, 427),
     (mozjs_sym_lexical_declaration, 427), (mozjs_sym_using_declaration, 427),
     (mozjs_sym_class_declaration, 427), (mozjs_sym_function_declaration, 427),
     (mozjs_sym_generator_function_declaration, 427), (mozjs_sym_decorator, 1112),
     (mozjs_aux_sym_export_statement_repeat1, 1355), (mozjs_aux_sym_object_repeat1, 1411),
     (mozjs_aux_sym_object_pattern_repeat1, 1414), (mozjs_anon_sym_STAR, 935),
     (mozjs_anon_sym_default, 937), (mozjs_anon_sym_LBRACE, 939),
     (mozjs_anon_sym_COMMA, 311), (mozjs_anon_sym_RBRACE, 313),
     (mozjs_anon_sym_var, 941), (mozjs_anon_sym_let, 943),
     (mozjs_anon_sym_const, 943), (mozjs_anon_sym_using, 945),
     (mozjs_anon_sym_await, 947), (mozjs_anon_sym_LPAREN, 949),
     (mozjs_anon_sym_SEMI, 311), (mozjs_anon_sym_in, 307),
     (mozjs_anon_sym_COLON, 325), (mozjs_anon_sym_EQ, 328),
     (mozjs_anon_sym_LBRACK, 311), (mozjs_anon_sym_LT, 307),
     (mozjs_anon_sym_GT, 307), (mozjs_anon_sym_DOT, 311),
     (mozjs_anon_sym_class, 952), (mozjs_anon_sym_async, 954),
     (mozjs_anon_sym_function, 956), (mozjs_anon_sym_EQ_GT, 342),
     (mozjs_sym_optional_chain, 311), (mozjs_anon_sym_PLUS_EQ, 344),
     (mozjs_anon_sym_DASH_EQ, 344), (mozjs_anon_sym_STAR_EQ, 344),
     (mozjs_anon_sym_SLASH_EQ, 344), (mozjs_anon_sym_PERCENT_EQ, 344),
     (mozjs_anon_sym_CARET_EQ, 344), (mozjs_anon_sym_AMP_EQ, 344),
     (mozjs_anon_sym_PIPE_EQ, 344), (mozjs_anon_sym_GT_GT_EQ, 344),
     (mozjs_anon_sym_GT_GT_GT_EQ, 344), (mozjs_anon_sym_LT_LT_EQ, 344),
     (mozjs_anon_sym_STAR_STAR_EQ, 344), (mozjs_anon_sym_AMP_AMP_EQ, 344),
     (mozjs_anon_sym_PIPE_PIPE_EQ, 344), (mozjs_anon_sym_QMARK_QMARK_EQ, 344),
     (mozjs_anon_sym_AMP_AMP, 307), (mozjs_anon_sym_PIPE_PIPE, 307),
     (mozjs_anon_sym_GT_GT, 307), (mozjs_anon_sym_GT_GT_GT, 307),
     (mozjs_anon_sym_LT_LT, 307), (mozjs_anon_sym_AMP, 307),
     (mozjs_anon_sym_CARET, 307), (mozjs_anon_sym_PIPE, 307),
     (mozjs_anon_sym_PLUS, 307), (mozjs_anon_sym_DASH, 307),
     (mozjs_anon_sym_SLASH, 307), (mozjs_anon_sym_PERCENT, 307),
     (mozjs_anon_sym_STAR_STAR, 307), (mozjs_anon_sym_LT_EQ, 311),
     (mozjs_anon_sym_EQ_EQ, 307), (mozjs_anon_sym_EQ_EQ_EQ, 311),
     (mozjs_anon_sym_BANG_EQ, 307), (mozjs_anon_sym_BANG_EQ_EQ, 311),
     (mozjs_anon_sym_GT_EQ, 311), (mozjs_anon_sym_QMARK_QMARK, 307),
     (mozjs_anon_sym_instanceof, 311), (mozjs_anon_sym_PLUS_PLUS, 311),
     (mozjs_anon_sym_DASH_DASH, 311), (mozjs_sym_comment, 5),
     (mozjs_anon_sym_BQUOTE, 311), (mozjs_anon_sym_AT, 93),
     (mozjs_sym__automatic_semicolon, 311), (mozjs_sym__ternary_qmark, 311),
     (mozjs_sym_html_comment, 5)]"

definition mozjs_parse_row_136 :: "(TSSymbol \<times> nat) list" where
  "mozjs_parse_row_136 =
    [(mozjs_sym_import, 1340), (mozjs_sym_parenthesized_expression, 525),
     (mozjs_sym_expression, 883), (mozjs_sym_primary_expression, 584),
     (mozjs_sym_yield_expression, 638), (mozjs_sym_object, 645),
     (mozjs_sym_object_pattern, 1827), (mozjs_sym_array, 645),
     (mozjs_sym_array_pattern, 1827), (mozjs_sym_jsx_element, 638),
     (mozjs_sym_jsx_opening_element, 1152), (mozjs_sym_jsx_self_closing_element, 638),
     (mozjs_sym_class, 645), (mozjs_sym_function_expression, 645),
     (mozjs_sym_generator_function, 645), (mozjs_sym_arrow_function, 645),
     (mozjs_sym_call_expression, 645), (mozjs_sym_new_expression, 587),
     (mozjs_sym_await_expression, 638), (mozjs_sym_member_expression, 525),
     (mozjs_sym_subscript_expression, 525), (mozjs_sym_assignment_expression, 638),
     (mozjs_sym__augmented_assignment_lhs, 1145), (mozjs_sym_augmented_assignment_expression,
       638),
     (mozjs_sym__destructuring_pattern, 1827), (mozjs_sym_ternary_expression, 638),
     (mozjs_sym_binary_expression, 638), (mozjs_sym_unary_expression, 638),
     (mozjs_sym_update_expression, 638), (mozjs_sym_sequence_expression, 1767),
     (mozjs_sym_string, 645), (mozjs_sym_template_string, 645),
     (mozjs_sym_regex, 645), (mozjs_sym_meta_property, 645),
     (mozjs_sym_decorator, 1112), (mozjs_sym_formal_parameters, 1777),
     (mozjs_aux_sym_export_statement_repeat1, 1395), (mozjs_sym_identifier, 384),
     (mozjs_anon_sym_export, 386), (mozjs_anon_sym_LBRACE, 388),
     (mozjs_anon_sym_import, 390), (mozjs_anon_sym_let, 386),
     (mozjs_anon_sym_await, 392), (mozjs_anon_sym_of, 845),
     (mozjs_anon_sym_LPAREN, 657), (mozjs_anon_sym_in, 845),
     (mozjs_anon_sym_yield, 397), (mozjs_anon_sym_LBRACK, 661),
     (mozjs_anon_sym_LT, 827), (mozjs_anon_sym_DQUOTE, 407),
     (mozjs_anon_sym_SQUOTE, 409), (mozjs_anon_sym_class, 411),
     (mozjs_anon_sym_async, 413), (mozjs_anon_sym_function, 415),
     (mozjs_anon_sym_new, 419), (mozjs_anon_sym_PLUS, 427),
     (mozjs_anon_sym_DASH, 427), (mozjs_anon_sym_SLASH, 665),
     (mozjs_anon_sym_BANG, 429), (mozjs_anon_sym_TILDE, 429),
     (mozjs_anon_sym_typeof, 427), (mozjs_anon_sym_void, 427),
     (mozjs_anon_sym_delete, 427), (mozjs_anon_sym_PLUS_PLUS, 667),
     (mozjs_anon_sym_DASH_DASH, 667), (mozjs_sym_comment, 5),
     (mozjs_anon_sym_BQUOTE, 669), (mozjs_sym_number, 437),
     (mozjs_sym_private_property_identifier, 439), (mozjs_sym_this, 441),
     (mozjs_sym_super, 441), (mozjs_sym_true, 441),
     (mozjs_sym_false, 441), (mozjs_sym_null, 441),
     (mozjs_sym_undefined, 443), (mozjs_anon_sym_AT, 93),
     (mozjs_anon_sym_static, 386), (mozjs_anon_sym_get, 386),
     (mozjs_anon_sym_set, 386), (mozjs_sym__automatic_semicolon, 962),
     (mozjs_sym_html_comment, 5)]"

definition mozjs_parse_row_137 :: "(TSSymbol \<times> nat) list" where
  "mozjs_parse_row_137 =
    [(mozjs_sym_import, 1340), (mozjs_sym_parenthesized_expression, 499),
     (mozjs_sym_expression, 985), (mozjs_sym_primary_expression, 584),
     (mozjs_sym_yield_expression, 638), (mozjs_sym_object, 645),
     (mozjs_sym_object_pattern, 1309), (mozjs_sym_assignment_pattern, 1738),
     (mozjs_sym_array, 645), (mozjs_sym_array_pattern, 1309),
     (mozjs_sym_jsx_element, 638), (mozjs_sym_jsx_opening_element, 1152),
     (mozjs_sym_jsx_self_closing_element, 638), (mozjs_sym_class, 645),
     (mozjs_sym_function_expression, 645), (mozjs_sym_generator_function, 645),
     (mozjs_sym_arrow_function, 645), (mozjs_sym_call_expression, 645),
     (mozjs_sym_new_expression, 587), (mozjs_sym_await_expression, 638),
     (mozjs_sym_member_expression, 554), (mozjs_sym_subscript_expression, 554),
     (mozjs_sym_assignment_expression, 638), (mozjs_sym__augmented_assignment_lhs, 1144),
     (mozjs_sym_augmented_assignment_expression, 638), (mozjs_sym__destructuring_pattern, 1309),
     (mozjs_sym_ternary_expression, 638), (mozjs_sym_binary_expression, 638),
     (mozjs_sym_unary_expression, 638), (mozjs_sym_update_expression, 638),
     (mozjs_sym_string, 645), (mozjs_sym_template_string, 645),
     (mozjs_sym_regex, 645), (mozjs_sym_meta_property, 645),
     (mozjs_sym_decorator, 1112), (mozjs_sym_formal_parameters, 1828),
     (mozjs_sym_pattern, 1503), (mozjs_sym_rest_pattern, 1294),
     (mozjs_aux_sym_export_statement_repeat1, 1395), (mozjs_sym_identifier, 879),
     (mozjs_anon_sym_export, 881), (mozjs_anon_sym_LBRACE, 883),
     (mozjs_anon_sym_import, 390), (mozjs_anon_sym_let, 881),
     (mozjs_anon_sym_await, 887), (mozjs_anon_sym_LPAREN, 657),
     (mozjs_anon_sym_yield, 469), (mozjs_anon_sym_LBRACK, 889),
     (mozjs_anon_sym_LT, 827), (mozjs_anon_sym_DQUOTE, 407),
     (mozjs_anon_sym_SQUOTE, 409), (mozjs_anon_sym_class, 411),
     (mozjs_anon_sym_async, 893), (mozjs_anon_sym_function, 415),
     (mozjs_anon_sym_new, 478), (mozjs_anon_sym_DOT_DOT_DOT, 895),
     (mozjs_anon_sym_PLUS, 483), (mozjs_anon_sym_DASH, 483),
     (mozjs_anon_sym_SLASH, 665), (mozjs_anon_sym_BANG, 485),
     (mozjs_anon_sym_TILDE, 485), (mozjs_anon_sym_typeof, 483),
     (mozjs_anon_sym_void, 483), (mozjs_anon_sym_delete, 483),
     (mozjs_anon_sym_PLUS_PLUS, 691), (mozjs_anon_sym_DASH_DASH, 691),
     (mozjs_sym_comment, 5), (mozjs_anon_sym_BQUOTE, 669),
     (mozjs_sym_number, 437), (mozjs_sym_private_property_identifier, 490),
     (mozjs_sym_this, 441), (mozjs_sym_super, 441),
     (mozjs_sym_true, 441), (mozjs_sym_false, 441),
     (mozjs_sym_null, 441), (mozjs_sym_undefined, 897),
     (mozjs_anon_sym_AT, 93), (mozjs_anon_sym_static, 881),
     (mozjs_anon_sym_get, 881), (mozjs_anon_sym_set, 881),
     (mozjs_sym_html_comment, 5)]"

definition mozjs_parse_row_138 :: "(TSSymbol \<times> nat) list" where
  "mozjs_parse_row_138 =
    [(mozjs_sym_import, 1340), (mozjs_sym_empty_statement, 151),
     (mozjs_sym_parenthesized_expression, 525), (mozjs_sym_expression, 886),
     (mozjs_sym_primary_expression, 584), (mozjs_sym_yield_expression, 638),
     (mozjs_sym_object, 645), (mozjs_sym_object_pattern, 1827),
     (mozjs_sym_array, 645), (mozjs_sym_array_pattern, 1827),
     (mozjs_sym_jsx_element, 638), (mozjs_sym_jsx_opening_element, 1152),
     (mozjs_sym_jsx_self_closing_element, 638), (mozjs_sym_class, 645),
     (mozjs_sym_function_expression, 645), (mozjs_sym_generator_function, 645),
     (mozjs_sym_arrow_function, 645), (mozjs_sym_call_expression, 645),
     (mozjs_sym_new_expression, 587), (mozjs_sym_await_expression, 638),
     (mozjs_sym_member_expression, 525), (mozjs_sym_subscript_expression, 525),
     (mozjs_sym_assignment_expression, 638), (mozjs_sym__augmented_assignment_lhs, 1145),
     (mozjs_sym_augmented_assignment_expression, 638), (mozjs_sym__destructuring_pattern, 1827),
     (mozjs_sym_ternary_expression, 638), (mozjs_sym_binary_expression, 638),
     (mozjs_sym_unary_expression, 638), (mozjs_sym_update_expression, 638),
     (mozjs_sym_sequence_expression, 1836), (mozjs_sym_string, 645),
     (mozjs_sym_template_string, 645), (mozjs_sym_regex, 645),
     (mozjs_sym_meta_property, 645), (mozjs_sym_decorator, 1112),
     (mozjs_sym_formal_parameters, 1777), (mozjs_aux_sym_export_statement_repeat1, 1395),
     (mozjs_sym_identifier, 384), (mozjs_anon_sym_export, 386),
     (mozjs_anon_sym_LBRACE, 388), (mozjs_anon_sym_import, 390),
     (mozjs_anon_sym_let, 386), (mozjs_anon_sym_await, 392),
     (mozjs_anon_sym_LPAREN, 657), (mozjs_anon_sym_SEMI, 868),
     (mozjs_anon_sym_yield, 397), (mozjs_anon_sym_LBRACK, 661),
     (mozjs_anon_sym_LT, 827), (mozjs_anon_sym_DQUOTE, 407),
     (mozjs_anon_sym_SQUOTE, 409), (mozjs_anon_sym_class, 411),
     (mozjs_anon_sym_async, 413), (mozjs_anon_sym_function, 415),
     (mozjs_anon_sym_new, 419), (mozjs_anon_sym_PLUS, 427),
     (mozjs_anon_sym_DASH, 427), (mozjs_anon_sym_SLASH, 665),
     (mozjs_anon_sym_BANG, 429), (mozjs_anon_sym_TILDE, 429),
     (mozjs_anon_sym_typeof, 427), (mozjs_anon_sym_void, 427),
     (mozjs_anon_sym_delete, 427), (mozjs_anon_sym_PLUS_PLUS, 667),
     (mozjs_anon_sym_DASH_DASH, 667), (mozjs_sym_comment, 5),
     (mozjs_anon_sym_BQUOTE, 669), (mozjs_sym_number, 437),
     (mozjs_sym_private_property_identifier, 439), (mozjs_sym_this, 441),
     (mozjs_sym_super, 441), (mozjs_sym_true, 441),
     (mozjs_sym_false, 441), (mozjs_sym_null, 441),
     (mozjs_sym_undefined, 443), (mozjs_anon_sym_AT, 93),
     (mozjs_anon_sym_static, 386), (mozjs_anon_sym_get, 386),
     (mozjs_anon_sym_set, 386), (mozjs_sym_html_comment, 5)]"

definition mozjs_parse_row_139 :: "(TSSymbol \<times> nat) list" where
  "mozjs_parse_row_139 =
    [(mozjs_sym_import, 1333), (mozjs_sym_parenthesized_expression, 556),
     (mozjs_sym_expression, 829), (mozjs_sym_primary_expression, 693),
     (mozjs_sym_yield_expression, 743), (mozjs_sym_object, 793),
     (mozjs_sym_object_pattern, 1845), (mozjs_sym_array, 793),
     (mozjs_sym_array_pattern, 1845), (mozjs_sym_jsx_element, 743),
     (mozjs_sym_jsx_opening_element, 1158), (mozjs_sym_jsx_self_closing_element, 743),
     (mozjs_sym_class, 793), (mozjs_sym_function_expression, 793),
     (mozjs_sym_generator_function, 793), (mozjs_sym_arrow_function, 793),
     (mozjs_sym_call_expression, 793), (mozjs_sym_new_expression, 692),
     (mozjs_sym_await_expression, 743), (mozjs_sym_member_expression, 556),
     (mozjs_sym_subscript_expression, 556), (mozjs_sym_assignment_expression, 743),
     (mozjs_sym__augmented_assignment_lhs, 1146), (mozjs_sym_augmented_assignment_expression,
       743),
     (mozjs_sym__destructuring_pattern, 1845), (mozjs_sym_ternary_expression, 743),
     (mozjs_sym_binary_expression, 743), (mozjs_sym_unary_expression, 743),
     (mozjs_sym_update_expression, 743), (mozjs_sym_sequence_expression, 1719),
     (mozjs_sym_string, 793), (mozjs_sym_template_string, 793),
     (mozjs_sym_regex, 793), (mozjs_sym_meta_property, 793),
     (mozjs_sym_decorator, 1112), (mozjs_sym_formal_parameters, 1847),
     (mozjs_aux_sym_export_statement_repeat1, 1331), (mozjs_sym_identifier, 303),
     (mozjs_anon_sym_export, 305), (mozjs_anon_sym_LBRACE, 309),
     (mozjs_anon_sym_import, 315), (mozjs_anon_sym_let, 305),
     (mozjs_anon_sym_await, 319), (mozjs_anon_sym_LPAREN, 37),
     (mozjs_anon_sym_SEMI, 964), (mozjs_anon_sym_yield, 57),
     (mozjs_anon_sym_LBRACK, 59), (mozjs_anon_sym_LT, 61),
     (mozjs_anon_sym_DQUOTE, 63), (mozjs_anon_sym_SQUOTE, 65),
     (mozjs_anon_sym_class, 336), (mozjs_anon_sym_async, 338),
     (mozjs_anon_sym_function, 340), (mozjs_anon_sym_new, 73),
     (mozjs_anon_sym_PLUS, 75), (mozjs_anon_sym_DASH, 75),
     (mozjs_anon_sym_SLASH, 77), (mozjs_anon_sym_BANG, 79),
     (mozjs_anon_sym_TILDE, 79), (mozjs_anon_sym_typeof, 75),
     (mozjs_anon_sym_void, 75), (mozjs_anon_sym_delete, 75),
     (mozjs_anon_sym_PLUS_PLUS, 81), (mozjs_anon_sym_DASH_DASH, 81),
     (mozjs_sym_comment, 5), (mozjs_anon_sym_BQUOTE, 83),
     (mozjs_sym_number, 85), (mozjs_sym_private_property_identifier, 358),
     (mozjs_sym_this, 89), (mozjs_sym_super, 89),
     (mozjs_sym_true, 89), (mozjs_sym_false, 89),
     (mozjs_sym_null, 89), (mozjs_sym_undefined, 91),
     (mozjs_anon_sym_AT, 93), (mozjs_anon_sym_static, 305),
     (mozjs_anon_sym_get, 305), (mozjs_anon_sym_set, 305),
     (mozjs_sym__automatic_semicolon, 964), (mozjs_sym_html_comment, 5)]"

definition mozjs_parse_row_140 :: "(TSSymbol \<times> nat) list" where
  "mozjs_parse_row_140 =
    [(mozjs_sym_import, 1340), (mozjs_sym_parenthesized_expression, 580),
     (mozjs_sym_expression, 985), (mozjs_sym_primary_expression, 584),
     (mozjs_sym_yield_expression, 638), (mozjs_sym_object, 645),
     (mozjs_sym_object_pattern, 1501), (mozjs_sym_array, 645),
     (mozjs_sym_array_pattern, 1501), (mozjs_sym_jsx_element, 638),
     (mozjs_sym_jsx_opening_element, 1152), (mozjs_sym_jsx_self_closing_element, 638),
     (mozjs_sym_class, 645), (mozjs_sym_function_expression, 645),
     (mozjs_sym_generator_function, 645), (mozjs_sym_arrow_function, 645),
     (mozjs_sym_call_expression, 645), (mozjs_sym_new_expression, 587),
     (mozjs_sym_await_expression, 638), (mozjs_sym_member_expression, 580),
     (mozjs_sym_subscript_expression, 580), (mozjs_sym_assignment_expression, 638),
     (mozjs_sym__augmented_assignment_lhs, 1144), (mozjs_sym_augmented_assignment_expression,
       638),
     (mozjs_sym__destructuring_pattern, 1501), (mozjs_sym_ternary_expression, 638),
     (mozjs_sym_binary_expression, 638), (mozjs_sym_unary_expression, 638),
     (mozjs_sym_update_expression, 638), (mozjs_sym_string, 645),
     (mozjs_sym_template_string, 645), (mozjs_sym_regex, 645),
     (mozjs_sym_meta_property, 645), (mozjs_sym_decorator, 1112),
     (mozjs_sym_formal_parameters, 1828), (mozjs_aux_sym_export_statement_repeat1, 1395),
     (mozjs_sym_identifier, 966), (mozjs_anon_sym_export, 968),
     (mozjs_anon_sym_LBRACE, 856), (mozjs_anon_sym_import, 390),
     (mozjs_anon_sym_var, 970), (mozjs_anon_sym_let, 972),
     (mozjs_anon_sym_const, 864), (mozjs_anon_sym_using, 864),
     (mozjs_anon_sym_await, 974), (mozjs_anon_sym_LPAREN, 657),
     (mozjs_anon_sym_yield, 469), (mozjs_anon_sym_LBRACK, 870),
     (mozjs_anon_sym_LT, 827), (mozjs_anon_sym_DQUOTE, 407),
     (mozjs_anon_sym_SQUOTE, 409), (mozjs_anon_sym_class, 411),
     (mozjs_anon_sym_async, 976), (mozjs_anon_sym_function, 415),
     (mozjs_anon_sym_new, 478), (mozjs_anon_sym_PLUS, 483),
     (mozjs_anon_sym_DASH, 483), (mozjs_anon_sym_SLASH, 665),
     (mozjs_anon_sym_BANG, 485), (mozjs_anon_sym_TILDE, 485),
     (mozjs_anon_sym_typeof, 483), (mozjs_anon_sym_void, 483),
     (mozjs_anon_sym_delete, 483), (mozjs_anon_sym_PLUS_PLUS, 691),
     (mozjs_anon_sym_DASH_DASH, 691), (mozjs_sym_comment, 5),
     (mozjs_anon_sym_BQUOTE, 669), (mozjs_sym_number, 437),
     (mozjs_sym_private_property_identifier, 490), (mozjs_sym_this, 441),
     (mozjs_sym_super, 441), (mozjs_sym_true, 441),
     (mozjs_sym_false, 441), (mozjs_sym_null, 441),
     (mozjs_sym_undefined, 978), (mozjs_anon_sym_AT, 93),
     (mozjs_anon_sym_static, 968), (mozjs_anon_sym_get, 968),
     (mozjs_anon_sym_set, 968), (mozjs_sym_html_comment, 5)]"

definition mozjs_parse_row_141 :: "(TSSymbol \<times> nat) list" where
  "mozjs_parse_row_141 =
    [(mozjs_sym_import, 1340), (mozjs_sym_empty_statement, 145),
     (mozjs_sym_parenthesized_expression, 525), (mozjs_sym_expression, 867),
     (mozjs_sym_primary_expression, 584), (mozjs_sym_yield_expression, 638),
     (mozjs_sym_object, 645), (mozjs_sym_object_pattern, 1827),
     (mozjs_sym_array, 645), (mozjs_sym_array_pattern, 1827),
     (mozjs_sym_jsx_element, 638), (mozjs_sym_jsx_opening_element, 1152),
     (mozjs_sym_jsx_self_closing_element, 638), (mozjs_sym_class, 645),
     (mozjs_sym_function_expression, 645), (mozjs_sym_generator_function, 645),
     (mozjs_sym_arrow_function, 645), (mozjs_sym_call_expression, 645),
     (mozjs_sym_new_expression, 587), (mozjs_sym_await_expression, 638),
     (mozjs_sym_member_expression, 525), (mozjs_sym_subscript_expression, 525),
     (mozjs_sym_assignment_expression, 638), (mozjs_sym__augmented_assignment_lhs, 1145),
     (mozjs_sym_augmented_assignment_expression, 638), (mozjs_sym__destructuring_pattern, 1827),
     (mozjs_sym_ternary_expression, 638), (mozjs_sym_binary_expression, 638),
     (mozjs_sym_unary_expression, 638), (mozjs_sym_update_expression, 638),
     (mozjs_sym_sequence_expression, 1844), (mozjs_sym_string, 645),
     (mozjs_sym_template_string, 645), (mozjs_sym_regex, 645),
     (mozjs_sym_meta_property, 645), (mozjs_sym_decorator, 1112),
     (mozjs_sym_formal_parameters, 1777), (mozjs_aux_sym_export_statement_repeat1, 1395),
     (mozjs_sym_identifier, 384), (mozjs_anon_sym_export, 386),
     (mozjs_anon_sym_LBRACE, 388), (mozjs_anon_sym_import, 390),
     (mozjs_anon_sym_let, 386), (mozjs_anon_sym_await, 392),
     (mozjs_anon_sym_LPAREN, 657), (mozjs_anon_sym_SEMI, 868),
     (mozjs_anon_sym_yield, 397), (mozjs_anon_sym_LBRACK, 661),
     (mozjs_anon_sym_LT, 827), (mozjs_anon_sym_DQUOTE, 407),
     (mozjs_anon_sym_SQUOTE, 409), (mozjs_anon_sym_class, 411),
     (mozjs_anon_sym_async, 413), (mozjs_anon_sym_function, 415),
     (mozjs_anon_sym_new, 419), (mozjs_anon_sym_PLUS, 427),
     (mozjs_anon_sym_DASH, 427), (mozjs_anon_sym_SLASH, 665),
     (mozjs_anon_sym_BANG, 429), (mozjs_anon_sym_TILDE, 429),
     (mozjs_anon_sym_typeof, 427), (mozjs_anon_sym_void, 427),
     (mozjs_anon_sym_delete, 427), (mozjs_anon_sym_PLUS_PLUS, 667),
     (mozjs_anon_sym_DASH_DASH, 667), (mozjs_sym_comment, 5),
     (mozjs_anon_sym_BQUOTE, 669), (mozjs_sym_number, 437),
     (mozjs_sym_private_property_identifier, 439), (mozjs_sym_this, 441),
     (mozjs_sym_super, 441), (mozjs_sym_true, 441),
     (mozjs_sym_false, 441), (mozjs_sym_null, 441),
     (mozjs_sym_undefined, 443), (mozjs_anon_sym_AT, 93),
     (mozjs_anon_sym_static, 386), (mozjs_anon_sym_get, 386),
     (mozjs_anon_sym_set, 386), (mozjs_sym_html_comment, 5)]"

definition mozjs_parse_row_142 :: "(TSSymbol \<times> nat) list" where
  "mozjs_parse_row_142 =
    [(mozjs_sym_import, 1340), (mozjs_sym_empty_statement, 147),
     (mozjs_sym_parenthesized_expression, 525), (mozjs_sym_expression, 888),
     (mozjs_sym_primary_expression, 584), (mozjs_sym_yield_expression, 638),
     (mozjs_sym_object, 645), (mozjs_sym_object_pattern, 1827),
     (mozjs_sym_array, 645), (mozjs_sym_array_pattern, 1827),
     (mozjs_sym_jsx_element, 638), (mozjs_sym_jsx_opening_element, 1152),
     (mozjs_sym_jsx_self_closing_element, 638), (mozjs_sym_class, 645),
     (mozjs_sym_function_expression, 645), (mozjs_sym_generator_function, 645),
     (mozjs_sym_arrow_function, 645), (mozjs_sym_call_expression, 645),
     (mozjs_sym_new_expression, 587), (mozjs_sym_await_expression, 638),
     (mozjs_sym_member_expression, 525), (mozjs_sym_subscript_expression, 525),
     (mozjs_sym_assignment_expression, 638), (mozjs_sym__augmented_assignment_lhs, 1145),
     (mozjs_sym_augmented_assignment_expression, 638), (mozjs_sym__destructuring_pattern, 1827),
     (mozjs_sym_ternary_expression, 638), (mozjs_sym_binary_expression, 638),
     (mozjs_sym_unary_expression, 638), (mozjs_sym_update_expression, 638),
     (mozjs_sym_sequence_expression, 1852), (mozjs_sym_string, 645),
     (mozjs_sym_template_string, 645), (mozjs_sym_regex, 645),
     (mozjs_sym_meta_property, 645), (mozjs_sym_decorator, 1112),
     (mozjs_sym_formal_parameters, 1777), (mozjs_aux_sym_export_statement_repeat1, 1395),
     (mozjs_sym_identifier, 384), (mozjs_anon_sym_export, 386),
     (mozjs_anon_sym_LBRACE, 388), (mozjs_anon_sym_import, 390),
     (mozjs_anon_sym_let, 386), (mozjs_anon_sym_await, 392),
     (mozjs_anon_sym_LPAREN, 657), (mozjs_anon_sym_SEMI, 868),
     (mozjs_anon_sym_yield, 397), (mozjs_anon_sym_LBRACK, 661),
     (mozjs_anon_sym_LT, 827), (mozjs_anon_sym_DQUOTE, 407),
     (mozjs_anon_sym_SQUOTE, 409), (mozjs_anon_sym_class, 411),
     (mozjs_anon_sym_async, 413), (mozjs_anon_sym_function, 415),
     (mozjs_anon_sym_new, 419), (mozjs_anon_sym_PLUS, 427),
     (mozjs_anon_sym_DASH, 427), (mozjs_anon_sym_SLASH, 665),
     (mozjs_anon_sym_BANG, 429), (mozjs_anon_sym_TILDE, 429),
     (mozjs_anon_sym_typeof, 427), (mozjs_anon_sym_void, 427),
     (mozjs_anon_sym_delete, 427), (mozjs_anon_sym_PLUS_PLUS, 667),
     (mozjs_anon_sym_DASH_DASH, 667), (mozjs_sym_comment, 5),
     (mozjs_anon_sym_BQUOTE, 669), (mozjs_sym_number, 437),
     (mozjs_sym_private_property_identifier, 439), (mozjs_sym_this, 441),
     (mozjs_sym_super, 441), (mozjs_sym_true, 441),
     (mozjs_sym_false, 441), (mozjs_sym_null, 441),
     (mozjs_sym_undefined, 443), (mozjs_anon_sym_AT, 93),
     (mozjs_anon_sym_static, 386), (mozjs_anon_sym_get, 386),
     (mozjs_anon_sym_set, 386), (mozjs_sym_html_comment, 5)]"

definition mozjs_parse_row_143 :: "(TSSymbol \<times> nat) list" where
  "mozjs_parse_row_143 =
    [(mozjs_sym_import, 1340), (mozjs_sym_empty_statement, 149),
     (mozjs_sym_parenthesized_expression, 525), (mozjs_sym_expression, 889),
     (mozjs_sym_primary_expression, 584), (mozjs_sym_yield_expression, 638),
     (mozjs_sym_object, 645), (mozjs_sym_object_pattern, 1827),
     (mozjs_sym_array, 645), (mozjs_sym_array_pattern, 1827),
     (mozjs_sym_jsx_element, 638), (mozjs_sym_jsx_opening_element, 1152),
     (mozjs_sym_jsx_self_closing_element, 638), (mozjs_sym_class, 645),
     (mozjs_sym_function_expression, 645), (mozjs_sym_generator_function, 645),
     (mozjs_sym_arrow_function, 645), (mozjs_sym_call_expression, 645),
     (mozjs_sym_new_expression, 587), (mozjs_sym_await_expression, 638),
     (mozjs_sym_member_expression, 525), (mozjs_sym_subscript_expression, 525),
     (mozjs_sym_assignment_expression, 638), (mozjs_sym__augmented_assignment_lhs, 1145),
     (mozjs_sym_augmented_assignment_expression, 638), (mozjs_sym__destructuring_pattern, 1827),
     (mozjs_sym_ternary_expression, 638), (mozjs_sym_binary_expression, 638),
     (mozjs_sym_unary_expression, 638), (mozjs_sym_update_expression, 638),
     (mozjs_sym_sequence_expression, 1861), (mozjs_sym_string, 645),
     (mozjs_sym_template_string, 645), (mozjs_sym_regex, 645),
     (mozjs_sym_meta_property, 645), (mozjs_sym_decorator, 1112),
     (mozjs_sym_formal_parameters, 1777), (mozjs_aux_sym_export_statement_repeat1, 1395),
     (mozjs_sym_identifier, 384), (mozjs_anon_sym_export, 386),
     (mozjs_anon_sym_LBRACE, 388), (mozjs_anon_sym_import, 390),
     (mozjs_anon_sym_let, 386), (mozjs_anon_sym_await, 392),
     (mozjs_anon_sym_LPAREN, 657), (mozjs_anon_sym_SEMI, 868),
     (mozjs_anon_sym_yield, 397), (mozjs_anon_sym_LBRACK, 661),
     (mozjs_anon_sym_LT, 827), (mozjs_anon_sym_DQUOTE, 407),
     (mozjs_anon_sym_SQUOTE, 409), (mozjs_anon_sym_class, 411),
     (mozjs_anon_sym_async, 413), (mozjs_anon_sym_function, 415),
     (mozjs_anon_sym_new, 419), (mozjs_anon_sym_PLUS, 427),
     (mozjs_anon_sym_DASH, 427), (mozjs_anon_sym_SLASH, 665),
     (mozjs_anon_sym_BANG, 429), (mozjs_anon_sym_TILDE, 429),
     (mozjs_anon_sym_typeof, 427), (mozjs_anon_sym_void, 427),
     (mozjs_anon_sym_delete, 427), (mozjs_anon_sym_PLUS_PLUS, 667),
     (mozjs_anon_sym_DASH_DASH, 667), (mozjs_sym_comment, 5),
     (mozjs_anon_sym_BQUOTE, 669), (mozjs_sym_number, 437),
     (mozjs_sym_private_property_identifier, 439), (mozjs_sym_this, 441),
     (mozjs_sym_super, 441), (mozjs_sym_true, 441),
     (mozjs_sym_false, 441), (mozjs_sym_null, 441),
     (mozjs_sym_undefined, 443), (mozjs_anon_sym_AT, 93),
     (mozjs_anon_sym_static, 386), (mozjs_anon_sym_get, 386),
     (mozjs_anon_sym_set, 386), (mozjs_sym_html_comment, 5)]"

definition mozjs_parse_row_144 :: "(TSSymbol \<times> nat) list" where
  "mozjs_parse_row_144 =
    [(mozjs_sym_import, 1340), (mozjs_sym_parenthesized_expression, 525),
     (mozjs_sym_expression, 844), (mozjs_sym_primary_expression, 584),
     (mozjs_sym_yield_expression, 638), (mozjs_sym_object, 645),
     (mozjs_sym_object_pattern, 1827), (mozjs_sym_array, 645),
     (mozjs_sym_array_pattern, 1827), (mozjs_sym_jsx_element, 638),
     (mozjs_sym_jsx_opening_element, 1152), (mozjs_sym_jsx_self_closing_element, 638),
     (mozjs_sym_class, 645), (mozjs_sym_function_expression, 645),
     (mozjs_sym_generator_function, 645), (mozjs_sym_arrow_function, 645),
     (mozjs_sym_call_expression, 645), (mozjs_sym_new_expression, 587),
     (mozjs_sym_await_expression, 638), (mozjs_sym_member_expression, 525),
     (mozjs_sym_subscript_expression, 525), (mozjs_sym_assignment_expression, 638),
     (mozjs_sym__augmented_assignment_lhs, 1145), (mozjs_sym_augmented_assignment_expression,
       638),
     (mozjs_sym__destructuring_pattern, 1827), (mozjs_sym_ternary_expression, 638),
     (mozjs_sym_binary_expression, 638), (mozjs_sym_unary_expression, 638),
     (mozjs_sym_update_expression, 638), (mozjs_sym_sequence_expression, 1797),
     (mozjs_sym_string, 645), (mozjs_sym_template_string, 645),
     (mozjs_sym_regex, 645), (mozjs_sym_meta_property, 645),
     (mozjs_sym_decorator, 1112), (mozjs_sym_formal_parameters, 1777),
     (mozjs_aux_sym_export_statement_repeat1, 1395), (mozjs_sym_identifier, 384),
     (mozjs_anon_sym_export, 386), (mozjs_anon_sym_LBRACE, 388),
     (mozjs_anon_sym_import, 390), (mozjs_anon_sym_let, 386),
     (mozjs_anon_sym_await, 392), (mozjs_anon_sym_LPAREN, 657),
     (mozjs_anon_sym_RPAREN, 980), (mozjs_anon_sym_yield, 397),
     (mozjs_anon_sym_LBRACK, 661), (mozjs_anon_sym_LT, 827),
     (mozjs_anon_sym_DQUOTE, 407), (mozjs_anon_sym_SQUOTE, 409),
     (mozjs_anon_sym_class, 411), (mozjs_anon_sym_async, 413),
     (mozjs_anon_sym_function, 415), (mozjs_anon_sym_new, 419),
     (mozjs_anon_sym_PLUS, 427), (mozjs_anon_sym_DASH, 427),
     (mozjs_anon_sym_SLASH, 665), (mozjs_anon_sym_BANG, 429),
     (mozjs_anon_sym_TILDE, 429), (mozjs_anon_sym_typeof, 427),
     (mozjs_anon_sym_void, 427), (mozjs_anon_sym_delete, 427),
     (mozjs_anon_sym_PLUS_PLUS, 667), (mozjs_anon_sym_DASH_DASH, 667),
     (mozjs_sym_comment, 5), (mozjs_anon_sym_BQUOTE, 669),
     (mozjs_sym_number, 437), (mozjs_sym_private_property_identifier, 439),
     (mozjs_sym_this, 441), (mozjs_sym_super, 441),
     (mozjs_sym_true, 441), (mozjs_sym_false, 441),
     (mozjs_sym_null, 441), (mozjs_sym_undefined, 443),
     (mozjs_anon_sym_AT, 93), (mozjs_anon_sym_static, 386),
     (mozjs_anon_sym_get, 386), (mozjs_anon_sym_set, 386),
     (mozjs_sym_html_comment, 5)]"

definition mozjs_parse_row_145 :: "(TSSymbol \<times> nat) list" where
  "mozjs_parse_row_145 =
    [(mozjs_sym_import, 1340), (mozjs_sym_parenthesized_expression, 525),
     (mozjs_sym_expression, 885), (mozjs_sym_primary_expression, 584),
     (mozjs_sym_yield_expression, 638), (mozjs_sym_object, 645),
     (mozjs_sym_object_pattern, 1827), (mozjs_sym_array, 645),
     (mozjs_sym_array_pattern, 1827), (mozjs_sym_jsx_element, 638),
     (mozjs_sym_jsx_opening_element, 1152), (mozjs_sym_jsx_self_closing_element, 638),
     (mozjs_sym_class, 645), (mozjs_sym_function_expression, 645),
     (mozjs_sym_generator_function, 645), (mozjs_sym_arrow_function, 645),
     (mozjs_sym_call_expression, 645), (mozjs_sym_new_expression, 587),
     (mozjs_sym_await_expression, 638), (mozjs_sym_member_expression, 525),
     (mozjs_sym_subscript_expression, 525), (mozjs_sym_assignment_expression, 638),
     (mozjs_sym__augmented_assignment_lhs, 1145), (mozjs_sym_augmented_assignment_expression,
       638),
     (mozjs_sym__destructuring_pattern, 1827), (mozjs_sym_ternary_expression, 638),
     (mozjs_sym_binary_expression, 638), (mozjs_sym_unary_expression, 638),
     (mozjs_sym_update_expression, 638), (mozjs_sym_sequence_expression, 1757),
     (mozjs_sym_string, 645), (mozjs_sym_template_string, 645),
     (mozjs_sym_regex, 645), (mozjs_sym_meta_property, 645),
     (mozjs_sym_decorator, 1112), (mozjs_sym_formal_parameters, 1777),
     (mozjs_aux_sym_export_statement_repeat1, 1395), (mozjs_sym_identifier, 384),
     (mozjs_anon_sym_export, 386), (mozjs_anon_sym_LBRACE, 388),
     (mozjs_anon_sym_import, 390), (mozjs_anon_sym_let, 386),
     (mozjs_anon_sym_await, 392), (mozjs_anon_sym_LPAREN, 657),
     (mozjs_anon_sym_RPAREN, 982), (mozjs_anon_sym_yield, 397),
     (mozjs_anon_sym_LBRACK, 661), (mozjs_anon_sym_LT, 827),
     (mozjs_anon_sym_DQUOTE, 407), (mozjs_anon_sym_SQUOTE, 409),
     (mozjs_anon_sym_class, 411), (mozjs_anon_sym_async, 413),
     (mozjs_anon_sym_function, 415), (mozjs_anon_sym_new, 419),
     (mozjs_anon_sym_PLUS, 427), (mozjs_anon_sym_DASH, 427),
     (mozjs_anon_sym_SLASH, 665), (mozjs_anon_sym_BANG, 429),
     (mozjs_anon_sym_TILDE, 429), (mozjs_anon_sym_typeof, 427),
     (mozjs_anon_sym_void, 427), (mozjs_anon_sym_delete, 427),
     (mozjs_anon_sym_PLUS_PLUS, 667), (mozjs_anon_sym_DASH_DASH, 667),
     (mozjs_sym_comment, 5), (mozjs_anon_sym_BQUOTE, 669),
     (mozjs_sym_number, 437), (mozjs_sym_private_property_identifier, 439),
     (mozjs_sym_this, 441), (mozjs_sym_super, 441),
     (mozjs_sym_true, 441), (mozjs_sym_false, 441),
     (mozjs_sym_null, 441), (mozjs_sym_undefined, 443),
     (mozjs_anon_sym_AT, 93), (mozjs_anon_sym_static, 386),
     (mozjs_anon_sym_get, 386), (mozjs_anon_sym_set, 386),
     (mozjs_sym_html_comment, 5)]"

definition mozjs_parse_row_146 :: "(TSSymbol \<times> nat) list" where
  "mozjs_parse_row_146 =
    [(mozjs_sym_import, 1340), (mozjs_sym_parenthesized_expression, 525),
     (mozjs_sym_expression, 834), (mozjs_sym_primary_expression, 584),
     (mozjs_sym_yield_expression, 638), (mozjs_sym_object, 645),
     (mozjs_sym_object_pattern, 1827), (mozjs_sym_array, 645),
     (mozjs_sym_array_pattern, 1827), (mozjs_sym_jsx_element, 638),
     (mozjs_sym_jsx_opening_element, 1152), (mozjs_sym_jsx_self_closing_element, 638),
     (mozjs_sym_class, 645), (mozjs_sym_function_expression, 645),
     (mozjs_sym_generator_function, 645), (mozjs_sym_arrow_function, 645),
     (mozjs_sym_call_expression, 645), (mozjs_sym_new_expression, 587),
     (mozjs_sym_await_expression, 638), (mozjs_sym_member_expression, 525),
     (mozjs_sym_subscript_expression, 525), (mozjs_sym_assignment_expression, 638),
     (mozjs_sym__augmented_assignment_lhs, 1145), (mozjs_sym_augmented_assignment_expression,
       638),
     (mozjs_sym__destructuring_pattern, 1827), (mozjs_sym_ternary_expression, 638),
     (mozjs_sym_binary_expression, 638), (mozjs_sym_unary_expression, 638),
     (mozjs_sym_update_expression, 638), (mozjs_sym_sequence_expression, 1824),
     (mozjs_sym_string, 645), (mozjs_sym_template_string, 645),
     (mozjs_sym_regex, 645), (mozjs_sym_meta_property, 645),
     (mozjs_sym_decorator, 1112), (mozjs_sym_formal_parameters, 1777),
     (mozjs_aux_sym_export_statement_repeat1, 1395), (mozjs_sym_identifier, 384),
     (mozjs_anon_sym_export, 386), (mozjs_anon_sym_LBRACE, 388),
     (mozjs_anon_sym_import, 390), (mozjs_anon_sym_let, 386),
     (mozjs_anon_sym_await, 392), (mozjs_anon_sym_LPAREN, 657),
     (mozjs_anon_sym_RPAREN, 984), (mozjs_anon_sym_yield, 397),
     (mozjs_anon_sym_LBRACK, 661), (mozjs_anon_sym_LT, 827),
     (mozjs_anon_sym_DQUOTE, 407), (mozjs_anon_sym_SQUOTE, 409),
     (mozjs_anon_sym_class, 411), (mozjs_anon_sym_async, 413),
     (mozjs_anon_sym_function, 415), (mozjs_anon_sym_new, 419),
     (mozjs_anon_sym_PLUS, 427), (mozjs_anon_sym_DASH, 427),
     (mozjs_anon_sym_SLASH, 665), (mozjs_anon_sym_BANG, 429),
     (mozjs_anon_sym_TILDE, 429), (mozjs_anon_sym_typeof, 427),
     (mozjs_anon_sym_void, 427), (mozjs_anon_sym_delete, 427),
     (mozjs_anon_sym_PLUS_PLUS, 667), (mozjs_anon_sym_DASH_DASH, 667),
     (mozjs_sym_comment, 5), (mozjs_anon_sym_BQUOTE, 669),
     (mozjs_sym_number, 437), (mozjs_sym_private_property_identifier, 439),
     (mozjs_sym_this, 441), (mozjs_sym_super, 441),
     (mozjs_sym_true, 441), (mozjs_sym_false, 441),
     (mozjs_sym_null, 441), (mozjs_sym_undefined, 443),
     (mozjs_anon_sym_AT, 93), (mozjs_anon_sym_static, 386),
     (mozjs_anon_sym_get, 386), (mozjs_anon_sym_set, 386),
     (mozjs_sym_html_comment, 5)]"

definition mozjs_parse_row_147 :: "(TSSymbol \<times> nat) list" where
  "mozjs_parse_row_147 =
    [(mozjs_sym_import, 1340), (mozjs_sym_parenthesized_expression, 525),
     (mozjs_sym_expression, 878), (mozjs_sym_primary_expression, 584),
     (mozjs_sym_yield_expression, 638), (mozjs_sym_object, 645),
     (mozjs_sym_object_pattern, 1827), (mozjs_sym_array, 645),
     (mozjs_sym_array_pattern, 1827), (mozjs_sym_jsx_element, 638),
     (mozjs_sym_jsx_opening_element, 1152), (mozjs_sym_jsx_self_closing_element, 638),
     (mozjs_sym_class, 645), (mozjs_sym_function_expression, 645),
     (mozjs_sym_generator_function, 645), (mozjs_sym_arrow_function, 645),
     (mozjs_sym_call_expression, 645), (mozjs_sym_new_expression, 587),
     (mozjs_sym_await_expression, 638), (mozjs_sym_member_expression, 525),
     (mozjs_sym_subscript_expression, 525), (mozjs_sym_assignment_expression, 638),
     (mozjs_sym__augmented_assignment_lhs, 1145), (mozjs_sym_augmented_assignment_expression,
       638),
     (mozjs_sym__destructuring_pattern, 1827), (mozjs_sym_ternary_expression, 638),
     (mozjs_sym_binary_expression, 638), (mozjs_sym_unary_expression, 638),
     (mozjs_sym_update_expression, 638), (mozjs_sym_sequence_expression, 1800),
     (mozjs_sym_string, 645), (mozjs_sym_template_string, 645),
     (mozjs_sym_regex, 645), (mozjs_sym_meta_property, 645),
     (mozjs_sym_decorator, 1112), (mozjs_sym_formal_parameters, 1777),
     (mozjs_aux_sym_export_statement_repeat1, 1395), (mozjs_sym_identifier, 384),
     (mozjs_anon_sym_export, 386), (mozjs_anon_sym_LBRACE, 388),
     (mozjs_anon_sym_import, 390), (mozjs_anon_sym_let, 386),
     (mozjs_anon_sym_await, 392), (mozjs_anon_sym_LPAREN, 657),
     (mozjs_anon_sym_RPAREN, 986), (mozjs_anon_sym_yield, 397),
     (mozjs_anon_sym_LBRACK, 661), (mozjs_anon_sym_LT, 827),
     (mozjs_anon_sym_DQUOTE, 407), (mozjs_anon_sym_SQUOTE, 409),
     (mozjs_anon_sym_class, 411), (mozjs_anon_sym_async, 413),
     (mozjs_anon_sym_function, 415), (mozjs_anon_sym_new, 419),
     (mozjs_anon_sym_PLUS, 427), (mozjs_anon_sym_DASH, 427),
     (mozjs_anon_sym_SLASH, 665), (mozjs_anon_sym_BANG, 429),
     (mozjs_anon_sym_TILDE, 429), (mozjs_anon_sym_typeof, 427),
     (mozjs_anon_sym_void, 427), (mozjs_anon_sym_delete, 427),
     (mozjs_anon_sym_PLUS_PLUS, 667), (mozjs_anon_sym_DASH_DASH, 667),
     (mozjs_sym_comment, 5), (mozjs_anon_sym_BQUOTE, 669),
     (mozjs_sym_number, 437), (mozjs_sym_private_property_identifier, 439),
     (mozjs_sym_this, 441), (mozjs_sym_super, 441),
     (mozjs_sym_true, 441), (mozjs_sym_false, 441),
     (mozjs_sym_null, 441), (mozjs_sym_undefined, 443),
     (mozjs_anon_sym_AT, 93), (mozjs_anon_sym_static, 386),
     (mozjs_anon_sym_get, 386), (mozjs_anon_sym_set, 386),
     (mozjs_sym_html_comment, 5)]"

definition mozjs_parse_row_148 :: "(TSSymbol \<times> nat) list" where
  "mozjs_parse_row_148 =
    [(mozjs_sym_import, 1340), (mozjs_sym_parenthesized_expression, 525),
     (mozjs_sym_expression, 879), (mozjs_sym_primary_expression, 584),
     (mozjs_sym_yield_expression, 638), (mozjs_sym_object, 645),
     (mozjs_sym_object_pattern, 1827), (mozjs_sym_array, 645),
     (mozjs_sym_array_pattern, 1827), (mozjs_sym_jsx_element, 638),
     (mozjs_sym_jsx_opening_element, 1152), (mozjs_sym_jsx_self_closing_element, 638),
     (mozjs_sym_class, 645), (mozjs_sym_function_expression, 645),
     (mozjs_sym_generator_function, 645), (mozjs_sym_arrow_function, 645),
     (mozjs_sym_call_expression, 645), (mozjs_sym_new_expression, 587),
     (mozjs_sym_await_expression, 638), (mozjs_sym_member_expression, 525),
     (mozjs_sym_subscript_expression, 525), (mozjs_sym_assignment_expression, 638),
     (mozjs_sym__augmented_assignment_lhs, 1145), (mozjs_sym_augmented_assignment_expression,
       638),
     (mozjs_sym__destructuring_pattern, 1827), (mozjs_sym_ternary_expression, 638),
     (mozjs_sym_binary_expression, 638), (mozjs_sym_unary_expression, 638),
     (mozjs_sym_update_expression, 638), (mozjs_sym_sequence_expression, 1826),
     (mozjs_sym_string, 645), (mozjs_sym_template_string, 645),
     (mozjs_sym_regex, 645), (mozjs_sym_meta_property, 645),
     (mozjs_sym_decorator, 1112), (mozjs_sym_formal_parameters, 1777),
     (mozjs_aux_sym_export_statement_repeat1, 1395), (mozjs_sym_identifier, 384),
     (mozjs_anon_sym_export, 386), (mozjs_anon_sym_LBRACE, 388),
     (mozjs_anon_sym_import, 390), (mozjs_anon_sym_let, 386),
     (mozjs_anon_sym_await, 392), (mozjs_anon_sym_LPAREN, 657),
     (mozjs_anon_sym_RPAREN, 988), (mozjs_anon_sym_yield, 397),
     (mozjs_anon_sym_LBRACK, 661), (mozjs_anon_sym_LT, 827),
     (mozjs_anon_sym_DQUOTE, 407), (mozjs_anon_sym_SQUOTE, 409),
     (mozjs_anon_sym_class, 411), (mozjs_anon_sym_async, 413),
     (mozjs_anon_sym_function, 415), (mozjs_anon_sym_new, 419),
     (mozjs_anon_sym_PLUS, 427), (mozjs_anon_sym_DASH, 427),
     (mozjs_anon_sym_SLASH, 665), (mozjs_anon_sym_BANG, 429),
     (mozjs_anon_sym_TILDE, 429), (mozjs_anon_sym_typeof, 427),
     (mozjs_anon_sym_void, 427), (mozjs_anon_sym_delete, 427),
     (mozjs_anon_sym_PLUS_PLUS, 667), (mozjs_anon_sym_DASH_DASH, 667),
     (mozjs_sym_comment, 5), (mozjs_anon_sym_BQUOTE, 669),
     (mozjs_sym_number, 437), (mozjs_sym_private_property_identifier, 439),
     (mozjs_sym_this, 441), (mozjs_sym_super, 441),
     (mozjs_sym_true, 441), (mozjs_sym_false, 441),
     (mozjs_sym_null, 441), (mozjs_sym_undefined, 443),
     (mozjs_anon_sym_AT, 93), (mozjs_anon_sym_static, 386),
     (mozjs_anon_sym_get, 386), (mozjs_anon_sym_set, 386),
     (mozjs_sym_html_comment, 5)]"

definition mozjs_parse_row_149 :: "(TSSymbol \<times> nat) list" where
  "mozjs_parse_row_149 =
    [(mozjs_sym_import, 1340), (mozjs_sym_parenthesized_expression, 525),
     (mozjs_sym_expression, 880), (mozjs_sym_primary_expression, 584),
     (mozjs_sym_yield_expression, 638), (mozjs_sym_object, 645),
     (mozjs_sym_object_pattern, 1827), (mozjs_sym_array, 645),
     (mozjs_sym_array_pattern, 1827), (mozjs_sym_jsx_element, 638),
     (mozjs_sym_jsx_opening_element, 1152), (mozjs_sym_jsx_self_closing_element, 638),
     (mozjs_sym_class, 645), (mozjs_sym_function_expression, 645),
     (mozjs_sym_generator_function, 645), (mozjs_sym_arrow_function, 645),
     (mozjs_sym_call_expression, 645), (mozjs_sym_new_expression, 587),
     (mozjs_sym_await_expression, 638), (mozjs_sym_member_expression, 525),
     (mozjs_sym_subscript_expression, 525), (mozjs_sym_assignment_expression, 638),
     (mozjs_sym__augmented_assignment_lhs, 1145), (mozjs_sym_augmented_assignment_expression,
       638),
     (mozjs_sym__destructuring_pattern, 1827), (mozjs_sym_ternary_expression, 638),
     (mozjs_sym_binary_expression, 638), (mozjs_sym_unary_expression, 638),
     (mozjs_sym_update_expression, 638), (mozjs_sym_sequence_expression, 1834),
     (mozjs_sym_string, 645), (mozjs_sym_template_string, 645),
     (mozjs_sym_regex, 645), (mozjs_sym_meta_property, 645),
     (mozjs_sym_decorator, 1112), (mozjs_sym_formal_parameters, 1777),
     (mozjs_aux_sym_export_statement_repeat1, 1395), (mozjs_sym_identifier, 384),
     (mozjs_anon_sym_export, 386), (mozjs_anon_sym_LBRACE, 388),
     (mozjs_anon_sym_import, 390), (mozjs_anon_sym_let, 386),
     (mozjs_anon_sym_await, 392), (mozjs_anon_sym_LPAREN, 657),
     (mozjs_anon_sym_RPAREN, 990), (mozjs_anon_sym_yield, 397),
     (mozjs_anon_sym_LBRACK, 661), (mozjs_anon_sym_LT, 827),
     (mozjs_anon_sym_DQUOTE, 407), (mozjs_anon_sym_SQUOTE, 409),
     (mozjs_anon_sym_class, 411), (mozjs_anon_sym_async, 413),
     (mozjs_anon_sym_function, 415), (mozjs_anon_sym_new, 419),
     (mozjs_anon_sym_PLUS, 427), (mozjs_anon_sym_DASH, 427),
     (mozjs_anon_sym_SLASH, 665), (mozjs_anon_sym_BANG, 429),
     (mozjs_anon_sym_TILDE, 429), (mozjs_anon_sym_typeof, 427),
     (mozjs_anon_sym_void, 427), (mozjs_anon_sym_delete, 427),
     (mozjs_anon_sym_PLUS_PLUS, 667), (mozjs_anon_sym_DASH_DASH, 667),
     (mozjs_sym_comment, 5), (mozjs_anon_sym_BQUOTE, 669),
     (mozjs_sym_number, 437), (mozjs_sym_private_property_identifier, 439),
     (mozjs_sym_this, 441), (mozjs_sym_super, 441),
     (mozjs_sym_true, 441), (mozjs_sym_false, 441),
     (mozjs_sym_null, 441), (mozjs_sym_undefined, 443),
     (mozjs_anon_sym_AT, 93), (mozjs_anon_sym_static, 386),
     (mozjs_anon_sym_get, 386), (mozjs_anon_sym_set, 386),
     (mozjs_sym_html_comment, 5)]"

definition mozjs_parse_row_150 :: "(TSSymbol \<times> nat) list" where
  "mozjs_parse_row_150 =
    [(mozjs_sym_import, 1340), (mozjs_sym_parenthesized_expression, 525),
     (mozjs_sym_expression, 881), (mozjs_sym_primary_expression, 584),
     (mozjs_sym_yield_expression, 638), (mozjs_sym_object, 645),
     (mozjs_sym_object_pattern, 1827), (mozjs_sym_array, 645),
     (mozjs_sym_array_pattern, 1827), (mozjs_sym_jsx_element, 638),
     (mozjs_sym_jsx_opening_element, 1152), (mozjs_sym_jsx_self_closing_element, 638),
     (mozjs_sym_class, 645), (mozjs_sym_function_expression, 645),
     (mozjs_sym_generator_function, 645), (mozjs_sym_arrow_function, 645),
     (mozjs_sym_call_expression, 645), (mozjs_sym_new_expression, 587),
     (mozjs_sym_await_expression, 638), (mozjs_sym_member_expression, 525),
     (mozjs_sym_subscript_expression, 525), (mozjs_sym_assignment_expression, 638),
     (mozjs_sym__augmented_assignment_lhs, 1145), (mozjs_sym_augmented_assignment_expression,
       638),
     (mozjs_sym__destructuring_pattern, 1827), (mozjs_sym_ternary_expression, 638),
     (mozjs_sym_binary_expression, 638), (mozjs_sym_unary_expression, 638),
     (mozjs_sym_update_expression, 638), (mozjs_sym_sequence_expression, 1839),
     (mozjs_sym_string, 645), (mozjs_sym_template_string, 645),
     (mozjs_sym_regex, 645), (mozjs_sym_meta_property, 645),
     (mozjs_sym_decorator, 1112), (mozjs_sym_formal_parameters, 1777),
     (mozjs_aux_sym_export_statement_repeat1, 1395), (mozjs_sym_identifier, 384),
     (mozjs_anon_sym_export, 386), (mozjs_anon_sym_LBRACE, 388),
     (mozjs_anon_sym_import, 390), (mozjs_anon_sym_let, 386),
     (mozjs_anon_sym_await, 392), (mozjs_anon_sym_LPAREN, 657),
     (mozjs_anon_sym_RPAREN, 992), (mozjs_anon_sym_yield, 397),
     (mozjs_anon_sym_LBRACK, 661), (mozjs_anon_sym_LT, 827),
     (mozjs_anon_sym_DQUOTE, 407), (mozjs_anon_sym_SQUOTE, 409),
     (mozjs_anon_sym_class, 411), (mozjs_anon_sym_async, 413),
     (mozjs_anon_sym_function, 415), (mozjs_anon_sym_new, 419),
     (mozjs_anon_sym_PLUS, 427), (mozjs_anon_sym_DASH, 427),
     (mozjs_anon_sym_SLASH, 665), (mozjs_anon_sym_BANG, 429),
     (mozjs_anon_sym_TILDE, 429), (mozjs_anon_sym_typeof, 427),
     (mozjs_anon_sym_void, 427), (mozjs_anon_sym_delete, 427),
     (mozjs_anon_sym_PLUS_PLUS, 667), (mozjs_anon_sym_DASH_DASH, 667),
     (mozjs_sym_comment, 5), (mozjs_anon_sym_BQUOTE, 669),
     (mozjs_sym_number, 437), (mozjs_sym_private_property_identifier, 439),
     (mozjs_sym_this, 441), (mozjs_sym_super, 441),
     (mozjs_sym_true, 441), (mozjs_sym_false, 441),
     (mozjs_sym_null, 441), (mozjs_sym_undefined, 443),
     (mozjs_anon_sym_AT, 93), (mozjs_anon_sym_static, 386),
     (mozjs_anon_sym_get, 386), (mozjs_anon_sym_set, 386),
     (mozjs_sym_html_comment, 5)]"

definition mozjs_parse_row_151 :: "(TSSymbol \<times> nat) list" where
  "mozjs_parse_row_151 =
    [(mozjs_sym_import, 1340), (mozjs_sym_parenthesized_expression, 525),
     (mozjs_sym_expression, 835), (mozjs_sym_primary_expression, 584),
     (mozjs_sym_yield_expression, 638), (mozjs_sym_object, 645),
     (mozjs_sym_object_pattern, 1827), (mozjs_sym_array, 645),
     (mozjs_sym_array_pattern, 1827), (mozjs_sym_jsx_element, 638),
     (mozjs_sym_jsx_opening_element, 1152), (mozjs_sym_jsx_self_closing_element, 638),
     (mozjs_sym_class, 645), (mozjs_sym_function_expression, 645),
     (mozjs_sym_generator_function, 645), (mozjs_sym_arrow_function, 645),
     (mozjs_sym_call_expression, 645), (mozjs_sym_new_expression, 587),
     (mozjs_sym_await_expression, 638), (mozjs_sym_member_expression, 525),
     (mozjs_sym_subscript_expression, 525), (mozjs_sym_assignment_expression, 638),
     (mozjs_sym__augmented_assignment_lhs, 1145), (mozjs_sym_augmented_assignment_expression,
       638),
     (mozjs_sym__destructuring_pattern, 1827), (mozjs_sym_ternary_expression, 638),
     (mozjs_sym_binary_expression, 638), (mozjs_sym_unary_expression, 638),
     (mozjs_sym_update_expression, 638), (mozjs_sym_sequence_expression, 1864),
     (mozjs_sym_string, 645), (mozjs_sym_template_string, 645),
     (mozjs_sym_regex, 645), (mozjs_sym_meta_property, 645),
     (mozjs_sym_decorator, 1112), (mozjs_sym_formal_parameters, 1777),
     (mozjs_aux_sym_export_statement_repeat1, 1395), (mozjs_sym_identifier, 384),
     (mozjs_anon_sym_export, 386), (mozjs_anon_sym_LBRACE, 388),
     (mozjs_anon_sym_import, 390), (mozjs_anon_sym_let, 386),
     (mozjs_anon_sym_await, 392), (mozjs_anon_sym_LPAREN, 657),
     (mozjs_anon_sym_RPAREN, 994), (mozjs_anon_sym_yield, 397),
     (mozjs_anon_sym_LBRACK, 661), (mozjs_anon_sym_LT, 827),
     (mozjs_anon_sym_DQUOTE, 407), (mozjs_anon_sym_SQUOTE, 409),
     (mozjs_anon_sym_class, 411), (mozjs_anon_sym_async, 413),
     (mozjs_anon_sym_function, 415), (mozjs_anon_sym_new, 419),
     (mozjs_anon_sym_PLUS, 427), (mozjs_anon_sym_DASH, 427),
     (mozjs_anon_sym_SLASH, 665), (mozjs_anon_sym_BANG, 429),
     (mozjs_anon_sym_TILDE, 429), (mozjs_anon_sym_typeof, 427),
     (mozjs_anon_sym_void, 427), (mozjs_anon_sym_delete, 427),
     (mozjs_anon_sym_PLUS_PLUS, 667), (mozjs_anon_sym_DASH_DASH, 667),
     (mozjs_sym_comment, 5), (mozjs_anon_sym_BQUOTE, 669),
     (mozjs_sym_number, 437), (mozjs_sym_private_property_identifier, 439),
     (mozjs_sym_this, 441), (mozjs_sym_super, 441),
     (mozjs_sym_true, 441), (mozjs_sym_false, 441),
     (mozjs_sym_null, 441), (mozjs_sym_undefined, 443),
     (mozjs_anon_sym_AT, 93), (mozjs_anon_sym_static, 386),
     (mozjs_anon_sym_get, 386), (mozjs_anon_sym_set, 386),
     (mozjs_sym_html_comment, 5)]"

definition mozjs_parse_row_152 :: "(TSSymbol \<times> nat) list" where
  "mozjs_parse_row_152 =
    [(mozjs_sym_import, 1333), (mozjs_sym_statement_block, 747),
     (mozjs_sym_parenthesized_expression, 559), (mozjs_sym_expression, 726),
     (mozjs_sym_primary_expression, 693), (mozjs_sym_yield_expression, 743),
     (mozjs_sym_object, 793), (mozjs_sym_object_pattern, 1811),
     (mozjs_sym_array, 793), (mozjs_sym_array_pattern, 1811),
     (mozjs_sym_jsx_element, 743), (mozjs_sym_jsx_opening_element, 1158),
     (mozjs_sym_jsx_self_closing_element, 743), (mozjs_sym_class, 793),
     (mozjs_sym_function_expression, 793), (mozjs_sym_generator_function, 793),
     (mozjs_sym_arrow_function, 793), (mozjs_sym_call_expression, 793),
     (mozjs_sym_new_expression, 692), (mozjs_sym_await_expression, 743),
     (mozjs_sym_member_expression, 559), (mozjs_sym_subscript_expression, 559),
     (mozjs_sym_assignment_expression, 743), (mozjs_sym__augmented_assignment_lhs, 1143),
     (mozjs_sym_augmented_assignment_expression, 743), (mozjs_sym__destructuring_pattern, 1811),
     (mozjs_sym_ternary_expression, 743), (mozjs_sym_binary_expression, 743),
     (mozjs_sym_unary_expression, 743), (mozjs_sym_update_expression, 743),
     (mozjs_sym_string, 793), (mozjs_sym_template_string, 793),
     (mozjs_sym_regex, 793), (mozjs_sym_meta_property, 793),
     (mozjs_sym_decorator, 1112), (mozjs_sym_formal_parameters, 1812),
     (mozjs_aux_sym_export_statement_repeat1, 1331), (mozjs_sym_identifier, 551),
     (mozjs_anon_sym_export, 553), (mozjs_anon_sym_LBRACE, 996),
     (mozjs_anon_sym_import, 315), (mozjs_anon_sym_let, 553),
     (mozjs_anon_sym_await, 555), (mozjs_anon_sym_LPAREN, 37),
     (mozjs_anon_sym_yield, 557), (mozjs_anon_sym_LBRACK, 59),
     (mozjs_anon_sym_LT, 61), (mozjs_anon_sym_DQUOTE, 63),
     (mozjs_anon_sym_SQUOTE, 65), (mozjs_anon_sym_class, 336),
     (mozjs_anon_sym_async, 561), (mozjs_anon_sym_function, 340),
     (mozjs_anon_sym_new, 565), (mozjs_anon_sym_PLUS, 573),
     (mozjs_anon_sym_DASH, 573), (mozjs_anon_sym_SLASH, 677),
     (mozjs_anon_sym_BANG, 575), (mozjs_anon_sym_TILDE, 575),
     (mozjs_anon_sym_typeof, 573), (mozjs_anon_sym_void, 573),
     (mozjs_anon_sym_delete, 573), (mozjs_anon_sym_PLUS_PLUS, 679),
     (mozjs_anon_sym_DASH_DASH, 679), (mozjs_sym_comment, 5),
     (mozjs_anon_sym_BQUOTE, 83), (mozjs_sym_number, 85),
     (mozjs_sym_private_property_identifier, 580), (mozjs_sym_this, 89),
     (mozjs_sym_super, 89), (mozjs_sym_true, 89),
     (mozjs_sym_false, 89), (mozjs_sym_null, 89),
     (mozjs_sym_undefined, 582), (mozjs_anon_sym_AT, 93),
     (mozjs_anon_sym_static, 553), (mozjs_anon_sym_get, 553),
     (mozjs_anon_sym_set, 553), (mozjs_sym_html_comment, 5)]"

definition mozjs_parse_row_153 :: "(TSSymbol \<times> nat) list" where
  "mozjs_parse_row_153 =
    [(mozjs_sym_import, 1340), (mozjs_sym_statement_block, 637),
     (mozjs_sym_parenthesized_expression, 578), (mozjs_sym_expression, 902),
     (mozjs_sym_primary_expression, 584), (mozjs_sym_yield_expression, 638),
     (mozjs_sym_object, 645), (mozjs_sym_object_pattern, 1808),
     (mozjs_sym_array, 645), (mozjs_sym_array_pattern, 1808),
     (mozjs_sym_jsx_element, 638), (mozjs_sym_jsx_opening_element, 1152),
     (mozjs_sym_jsx_self_closing_element, 638), (mozjs_sym_class, 645),
     (mozjs_sym_function_expression, 645), (mozjs_sym_generator_function, 645),
     (mozjs_sym_arrow_function, 645), (mozjs_sym_call_expression, 645),
     (mozjs_sym_new_expression, 587), (mozjs_sym_await_expression, 638),
     (mozjs_sym_member_expression, 578), (mozjs_sym_subscript_expression, 578),
     (mozjs_sym_assignment_expression, 638), (mozjs_sym__augmented_assignment_lhs, 1147),
     (mozjs_sym_augmented_assignment_expression, 638), (mozjs_sym__destructuring_pattern, 1808),
     (mozjs_sym_ternary_expression, 638), (mozjs_sym_binary_expression, 638),
     (mozjs_sym_unary_expression, 638), (mozjs_sym_update_expression, 638),
     (mozjs_sym_string, 645), (mozjs_sym_template_string, 645),
     (mozjs_sym_regex, 645), (mozjs_sym_meta_property, 645),
     (mozjs_sym_decorator, 1112), (mozjs_sym_formal_parameters, 1838),
     (mozjs_aux_sym_export_statement_repeat1, 1395), (mozjs_sym_identifier, 620),
     (mozjs_anon_sym_export, 622), (mozjs_anon_sym_LBRACE, 998),
     (mozjs_anon_sym_import, 390), (mozjs_anon_sym_let, 622),
     (mozjs_anon_sym_await, 627), (mozjs_anon_sym_LPAREN, 657),
     (mozjs_anon_sym_yield, 629), (mozjs_anon_sym_LBRACK, 683),
     (mozjs_anon_sym_LT, 827), (mozjs_anon_sym_DQUOTE, 407),
     (mozjs_anon_sym_SQUOTE, 409), (mozjs_anon_sym_class, 411),
     (mozjs_anon_sym_async, 633), (mozjs_anon_sym_function, 415),
     (mozjs_anon_sym_new, 637), (mozjs_anon_sym_PLUS, 642),
     (mozjs_anon_sym_DASH, 642), (mozjs_anon_sym_SLASH, 665),
     (mozjs_anon_sym_BANG, 644), (mozjs_anon_sym_TILDE, 644),
     (mozjs_anon_sym_typeof, 642), (mozjs_anon_sym_void, 642),
     (mozjs_anon_sym_delete, 642), (mozjs_anon_sym_PLUS_PLUS, 695),
     (mozjs_anon_sym_DASH_DASH, 695), (mozjs_sym_comment, 5),
     (mozjs_anon_sym_BQUOTE, 669), (mozjs_sym_number, 437),
     (mozjs_sym_private_property_identifier, 649), (mozjs_sym_this, 441),
     (mozjs_sym_super, 441), (mozjs_sym_true, 441),
     (mozjs_sym_false, 441), (mozjs_sym_null, 441),
     (mozjs_sym_undefined, 651), (mozjs_anon_sym_AT, 93),
     (mozjs_anon_sym_static, 622), (mozjs_anon_sym_get, 622),
     (mozjs_anon_sym_set, 622), (mozjs_sym_html_comment, 5)]"

definition mozjs_parse_row_154 :: "(TSSymbol \<times> nat) list" where
  "mozjs_parse_row_154 =
    [(mozjs_sym_import, 1340), (mozjs_sym_statement_block, 649),
     (mozjs_sym_parenthesized_expression, 578), (mozjs_sym_expression, 903),
     (mozjs_sym_primary_expression, 584), (mozjs_sym_yield_expression, 638),
     (mozjs_sym_object, 645), (mozjs_sym_object_pattern, 1808),
     (mozjs_sym_array, 645), (mozjs_sym_array_pattern, 1808),
     (mozjs_sym_jsx_element, 638), (mozjs_sym_jsx_opening_element, 1152),
     (mozjs_sym_jsx_self_closing_element, 638), (mozjs_sym_class, 645),
     (mozjs_sym_function_expression, 645), (mozjs_sym_generator_function, 645),
     (mozjs_sym_arrow_function, 645), (mozjs_sym_call_expression, 645),
     (mozjs_sym_new_expression, 587), (mozjs_sym_await_expression, 638),
     (mozjs_sym_member_expression, 578), (mozjs_sym_subscript_expression, 578),
     (mozjs_sym_assignment_expression, 638), (mozjs_sym__augmented_assignment_lhs, 1147),
     (mozjs_sym_augmented_assignment_expression, 638), (mozjs_sym__destructuring_pattern, 1808),
     (mozjs_sym_ternary_expression, 638), (mozjs_sym_binary_expression, 638),
     (mozjs_sym_unary_expression, 638), (mozjs_sym_update_expression, 638),
     (mozjs_sym_string, 645), (mozjs_sym_template_string, 645),
     (mozjs_sym_regex, 645), (mozjs_sym_meta_property, 645),
     (mozjs_sym_decorator, 1112), (mozjs_sym_formal_parameters, 1838),
     (mozjs_aux_sym_export_statement_repeat1, 1395), (mozjs_sym_identifier, 620),
     (mozjs_anon_sym_export, 622), (mozjs_anon_sym_LBRACE, 998),
     (mozjs_anon_sym_import, 390), (mozjs_anon_sym_let, 622),
     (mozjs_anon_sym_await, 627), (mozjs_anon_sym_LPAREN, 657),
     (mozjs_anon_sym_yield, 629), (mozjs_anon_sym_LBRACK, 683),
     (mozjs_anon_sym_LT, 827), (mozjs_anon_sym_DQUOTE, 407),
     (mozjs_anon_sym_SQUOTE, 409), (mozjs_anon_sym_class, 411),
     (mozjs_anon_sym_async, 633), (mozjs_anon_sym_function, 415),
     (mozjs_anon_sym_new, 637), (mozjs_anon_sym_PLUS, 642),
     (mozjs_anon_sym_DASH, 642), (mozjs_anon_sym_SLASH, 665),
     (mozjs_anon_sym_BANG, 644), (mozjs_anon_sym_TILDE, 644),
     (mozjs_anon_sym_typeof, 642), (mozjs_anon_sym_void, 642),
     (mozjs_anon_sym_delete, 642), (mozjs_anon_sym_PLUS_PLUS, 695),
     (mozjs_anon_sym_DASH_DASH, 695), (mozjs_sym_comment, 5),
     (mozjs_anon_sym_BQUOTE, 669), (mozjs_sym_number, 437),
     (mozjs_sym_private_property_identifier, 649), (mozjs_sym_this, 441),
     (mozjs_sym_super, 441), (mozjs_sym_true, 441),
     (mozjs_sym_false, 441), (mozjs_sym_null, 441),
     (mozjs_sym_undefined, 651), (mozjs_anon_sym_AT, 93),
     (mozjs_anon_sym_static, 622), (mozjs_anon_sym_get, 622),
     (mozjs_anon_sym_set, 622), (mozjs_sym_html_comment, 5)]"

definition mozjs_parse_row_155 :: "(TSSymbol \<times> nat) list" where
  "mozjs_parse_row_155 =
    [(mozjs_sym_import, 1333), (mozjs_sym_statement_block, 725),
     (mozjs_sym_parenthesized_expression, 556), (mozjs_sym_expression, 730),
     (mozjs_sym_primary_expression, 693), (mozjs_sym_yield_expression, 743),
     (mozjs_sym_object, 793), (mozjs_sym_object_pattern, 1845),
     (mozjs_sym_array, 793), (mozjs_sym_array_pattern, 1845),
     (mozjs_sym_jsx_element, 743), (mozjs_sym_jsx_opening_element, 1158),
     (mozjs_sym_jsx_self_closing_element, 743), (mozjs_sym_class, 793),
     (mozjs_sym_function_expression, 793), (mozjs_sym_generator_function, 793),
     (mozjs_sym_arrow_function, 793), (mozjs_sym_call_expression, 793),
     (mozjs_sym_new_expression, 692), (mozjs_sym_await_expression, 743),
     (mozjs_sym_member_expression, 556), (mozjs_sym_subscript_expression, 556),
     (mozjs_sym_assignment_expression, 743), (mozjs_sym__augmented_assignment_lhs, 1146),
     (mozjs_sym_augmented_assignment_expression, 743), (mozjs_sym__destructuring_pattern, 1845),
     (mozjs_sym_ternary_expression, 743), (mozjs_sym_binary_expression, 743),
     (mozjs_sym_unary_expression, 743), (mozjs_sym_update_expression, 743),
     (mozjs_sym_string, 793), (mozjs_sym_template_string, 793),
     (mozjs_sym_regex, 793), (mozjs_sym_meta_property, 793),
     (mozjs_sym_decorator, 1112), (mozjs_sym_formal_parameters, 1847),
     (mozjs_aux_sym_export_statement_repeat1, 1331), (mozjs_sym_identifier, 303),
     (mozjs_anon_sym_export, 305), (mozjs_anon_sym_LBRACE, 996),
     (mozjs_anon_sym_import, 315), (mozjs_anon_sym_let, 305),
     (mozjs_anon_sym_await, 319), (mozjs_anon_sym_LPAREN, 37),
     (mozjs_anon_sym_yield, 57), (mozjs_anon_sym_LBRACK, 59),
     (mozjs_anon_sym_LT, 61), (mozjs_anon_sym_DQUOTE, 63),
     (mozjs_anon_sym_SQUOTE, 65), (mozjs_anon_sym_class, 336),
     (mozjs_anon_sym_async, 338), (mozjs_anon_sym_function, 340),
     (mozjs_anon_sym_new, 73), (mozjs_anon_sym_PLUS, 75),
     (mozjs_anon_sym_DASH, 75), (mozjs_anon_sym_SLASH, 77),
     (mozjs_anon_sym_BANG, 79), (mozjs_anon_sym_TILDE, 79),
     (mozjs_anon_sym_typeof, 75), (mozjs_anon_sym_void, 75),
     (mozjs_anon_sym_delete, 75), (mozjs_anon_sym_PLUS_PLUS, 81),
     (mozjs_anon_sym_DASH_DASH, 81), (mozjs_sym_comment, 5),
     (mozjs_anon_sym_BQUOTE, 83), (mozjs_sym_number, 85),
     (mozjs_sym_private_property_identifier, 358), (mozjs_sym_this, 89),
     (mozjs_sym_super, 89), (mozjs_sym_true, 89),
     (mozjs_sym_false, 89), (mozjs_sym_null, 89),
     (mozjs_sym_undefined, 91), (mozjs_anon_sym_AT, 93),
     (mozjs_anon_sym_static, 305), (mozjs_anon_sym_get, 305),
     (mozjs_anon_sym_set, 305), (mozjs_sym_html_comment, 5)]"

definition mozjs_parse_row_156 :: "(TSSymbol \<times> nat) list" where
  "mozjs_parse_row_156 =
    [(mozjs_sym_import, 1340), (mozjs_sym_parenthesized_expression, 499),
     (mozjs_sym_expression, 985), (mozjs_sym_primary_expression, 582),
     (mozjs_sym_yield_expression, 638), (mozjs_sym_object, 645),
     (mozjs_sym_object_pattern, 1766), (mozjs_sym_array, 645),
     (mozjs_sym_array_pattern, 1766), (mozjs_sym_jsx_element, 638),
     (mozjs_sym_jsx_opening_element, 1152), (mozjs_sym_jsx_self_closing_element, 638),
     (mozjs_sym_class, 645), (mozjs_sym_function_expression, 645),
     (mozjs_sym_generator_function, 645), (mozjs_sym_arrow_function, 645),
     (mozjs_sym_call_expression, 645), (mozjs_sym_new_expression, 583),
     (mozjs_sym_await_expression, 638), (mozjs_sym_member_expression, 499),
     (mozjs_sym_subscript_expression, 499), (mozjs_sym_assignment_expression, 638),
     (mozjs_sym__augmented_assignment_lhs, 1144), (mozjs_sym_augmented_assignment_expression,
       638),
     (mozjs_sym__destructuring_pattern, 1766), (mozjs_sym_ternary_expression, 638),
     (mozjs_sym_binary_expression, 638), (mozjs_sym_unary_expression, 638),
     (mozjs_sym_update_expression, 638), (mozjs_sym_string, 645),
     (mozjs_sym_template_string, 645), (mozjs_sym_regex, 645),
     (mozjs_sym_meta_property, 645), (mozjs_sym_decorator, 1112),
     (mozjs_sym_formal_parameters, 1777), (mozjs_aux_sym_export_statement_repeat1, 1395),
     (mozjs_sym_identifier, 1000), (mozjs_anon_sym_export, 1002),
     (mozjs_anon_sym_LBRACE, 388), (mozjs_anon_sym_import, 390),
     (mozjs_anon_sym_let, 1002), (mozjs_anon_sym_await, 1004),
     (mozjs_anon_sym_LPAREN, 657), (mozjs_anon_sym_yield, 469),
     (mozjs_anon_sym_LBRACK, 661), (mozjs_anon_sym_LT, 827),
     (mozjs_anon_sym_DOT, 1006), (mozjs_anon_sym_DQUOTE, 407),
     (mozjs_anon_sym_SQUOTE, 409), (mozjs_anon_sym_class, 411),
     (mozjs_anon_sym_async, 1008), (mozjs_anon_sym_function, 415),
     (mozjs_anon_sym_new, 419), (mozjs_anon_sym_PLUS, 483),
     (mozjs_anon_sym_DASH, 483), (mozjs_anon_sym_SLASH, 665),
     (mozjs_anon_sym_BANG, 485), (mozjs_anon_sym_TILDE, 485),
     (mozjs_anon_sym_typeof, 483), (mozjs_anon_sym_void, 483),
     (mozjs_anon_sym_delete, 483), (mozjs_anon_sym_PLUS_PLUS, 691),
     (mozjs_anon_sym_DASH_DASH, 691), (mozjs_sym_comment, 5),
     (mozjs_anon_sym_BQUOTE, 669), (mozjs_sym_number, 437),
     (mozjs_sym_private_property_identifier, 490), (mozjs_sym_this, 441),
     (mozjs_sym_super, 441), (mozjs_sym_true, 441),
     (mozjs_sym_false, 441), (mozjs_sym_null, 441),
     (mozjs_sym_undefined, 492), (mozjs_anon_sym_AT, 93),
     (mozjs_anon_sym_static, 1002), (mozjs_anon_sym_get, 1002),
     (mozjs_anon_sym_set, 1002), (mozjs_sym_html_comment, 5)]"

definition mozjs_parse_row_157 :: "(TSSymbol \<times> nat) list" where
  "mozjs_parse_row_157 =
    [(mozjs_sym_import, 1340), (mozjs_sym_parenthesized_expression, 499),
     (mozjs_sym_expression, 985), (mozjs_sym_primary_expression, 582),
     (mozjs_sym_yield_expression, 638), (mozjs_sym_object, 645),
     (mozjs_sym_object_pattern, 1766), (mozjs_sym_array, 645),
     (mozjs_sym_array_pattern, 1766), (mozjs_sym_jsx_element, 638),
     (mozjs_sym_jsx_opening_element, 1152), (mozjs_sym_jsx_self_closing_element, 638),
     (mozjs_sym_class, 645), (mozjs_sym_function_expression, 645),
     (mozjs_sym_generator_function, 645), (mozjs_sym_arrow_function, 645),
     (mozjs_sym_call_expression, 645), (mozjs_sym_new_expression, 583),
     (mozjs_sym_await_expression, 638), (mozjs_sym_member_expression, 499),
     (mozjs_sym_subscript_expression, 499), (mozjs_sym_assignment_expression, 638),
     (mozjs_sym__augmented_assignment_lhs, 1144), (mozjs_sym_augmented_assignment_expression,
       638),
     (mozjs_sym__destructuring_pattern, 1766), (mozjs_sym_ternary_expression, 638),
     (mozjs_sym_binary_expression, 638), (mozjs_sym_unary_expression, 638),
     (mozjs_sym_update_expression, 638), (mozjs_sym_string, 645),
     (mozjs_sym_template_string, 645), (mozjs_sym_regex, 645),
     (mozjs_sym_meta_property, 645), (mozjs_sym_decorator, 1112),
     (mozjs_sym_formal_parameters, 1828), (mozjs_aux_sym_export_statement_repeat1, 1395),
     (mozjs_sym_identifier, 461), (mozjs_anon_sym_export, 463),
     (mozjs_anon_sym_LBRACE, 465), (mozjs_anon_sym_import, 390),
     (mozjs_anon_sym_let, 463), (mozjs_anon_sym_await, 467),
     (mozjs_anon_sym_LPAREN, 657), (mozjs_anon_sym_yield, 469),
     (mozjs_anon_sym_LBRACK, 683), (mozjs_anon_sym_LT, 827),
     (mozjs_anon_sym_DOT, 1006), (mozjs_anon_sym_DQUOTE, 407),
     (mozjs_anon_sym_SQUOTE, 409), (mozjs_anon_sym_class, 411),
     (mozjs_anon_sym_async, 476), (mozjs_anon_sym_function, 415),
     (mozjs_anon_sym_new, 478), (mozjs_anon_sym_PLUS, 483),
     (mozjs_anon_sym_DASH, 483), (mozjs_anon_sym_SLASH, 665),
     (mozjs_anon_sym_BANG, 485), (mozjs_anon_sym_TILDE, 485),
     (mozjs_anon_sym_typeof, 483), (mozjs_anon_sym_void, 483),
     (mozjs_anon_sym_delete, 483), (mozjs_anon_sym_PLUS_PLUS, 691),
     (mozjs_anon_sym_DASH_DASH, 691), (mozjs_sym_comment, 5),
     (mozjs_anon_sym_BQUOTE, 669), (mozjs_sym_number, 437),
     (mozjs_sym_private_property_identifier, 490), (mozjs_sym_this, 441),
     (mozjs_sym_super, 441), (mozjs_sym_true, 441),
     (mozjs_sym_false, 441), (mozjs_sym_null, 441),
     (mozjs_sym_undefined, 492), (mozjs_anon_sym_AT, 93),
     (mozjs_anon_sym_static, 463), (mozjs_anon_sym_get, 463),
     (mozjs_anon_sym_set, 463), (mozjs_sym_html_comment, 5)]"

definition mozjs_parse_row_158 :: "(TSSymbol \<times> nat) list" where
  "mozjs_parse_row_158 =
    [(mozjs_sym_import, 1340), (mozjs_sym_parenthesized_expression, 525),
     (mozjs_sym_expression, 838), (mozjs_sym_primary_expression, 584),
     (mozjs_sym_yield_expression, 638), (mozjs_sym_object, 645),
     (mozjs_sym_object_pattern, 1827), (mozjs_sym_array, 645),
     (mozjs_sym_array_pattern, 1827), (mozjs_sym_jsx_element, 638),
     (mozjs_sym_jsx_opening_element, 1152), (mozjs_sym_jsx_self_closing_element, 638),
     (mozjs_sym_class, 645), (mozjs_sym_function_expression, 645),
     (mozjs_sym_generator_function, 645), (mozjs_sym_arrow_function, 645),
     (mozjs_sym_call_expression, 645), (mozjs_sym_new_expression, 587),
     (mozjs_sym_await_expression, 638), (mozjs_sym_member_expression, 525),
     (mozjs_sym_subscript_expression, 525), (mozjs_sym_assignment_expression, 638),
     (mozjs_sym__augmented_assignment_lhs, 1145), (mozjs_sym_augmented_assignment_expression,
       638),
     (mozjs_sym__destructuring_pattern, 1827), (mozjs_sym_ternary_expression, 638),
     (mozjs_sym_binary_expression, 638), (mozjs_sym_unary_expression, 638),
     (mozjs_sym_update_expression, 638), (mozjs_sym_sequence_expression, 1829),
     (mozjs_sym_string, 645), (mozjs_sym_template_string, 645),
     (mozjs_sym_regex, 645), (mozjs_sym_meta_property, 645),
     (mozjs_sym_decorator, 1112), (mozjs_sym_formal_parameters, 1777),
     (mozjs_aux_sym_export_statement_repeat1, 1395), (mozjs_sym_identifier, 384),
     (mozjs_anon_sym_export, 386), (mozjs_anon_sym_LBRACE, 388),
     (mozjs_anon_sym_import, 390), (mozjs_anon_sym_let, 386),
     (mozjs_anon_sym_await, 392), (mozjs_anon_sym_LPAREN, 657),
     (mozjs_anon_sym_yield, 397), (mozjs_anon_sym_LBRACK, 661),
     (mozjs_anon_sym_LT, 827), (mozjs_anon_sym_DQUOTE, 407),
     (mozjs_anon_sym_SQUOTE, 409), (mozjs_anon_sym_class, 411),
     (mozjs_anon_sym_async, 413), (mozjs_anon_sym_function, 415),
     (mozjs_anon_sym_new, 419), (mozjs_anon_sym_PLUS, 427),
     (mozjs_anon_sym_DASH, 427), (mozjs_anon_sym_SLASH, 665),
     (mozjs_anon_sym_BANG, 429), (mozjs_anon_sym_TILDE, 429),
     (mozjs_anon_sym_typeof, 427), (mozjs_anon_sym_void, 427),
     (mozjs_anon_sym_delete, 427), (mozjs_anon_sym_PLUS_PLUS, 667),
     (mozjs_anon_sym_DASH_DASH, 667), (mozjs_sym_comment, 5),
     (mozjs_anon_sym_BQUOTE, 669), (mozjs_sym_number, 437),
     (mozjs_sym_private_property_identifier, 439), (mozjs_sym_this, 441),
     (mozjs_sym_super, 441), (mozjs_sym_true, 441),
     (mozjs_sym_false, 441), (mozjs_sym_null, 441),
     (mozjs_sym_undefined, 443), (mozjs_anon_sym_AT, 93),
     (mozjs_anon_sym_static, 386), (mozjs_anon_sym_get, 386),
     (mozjs_anon_sym_set, 386), (mozjs_sym_html_comment, 5)]"

definition mozjs_parse_row_159 :: "(TSSymbol \<times> nat) list" where
  "mozjs_parse_row_159 =
    [(mozjs_sym_import, 1340), (mozjs_sym_parenthesized_expression, 525),
     (mozjs_sym_expression, 839), (mozjs_sym_primary_expression, 584),
     (mozjs_sym_yield_expression, 638), (mozjs_sym_object, 645),
     (mozjs_sym_object_pattern, 1827), (mozjs_sym_array, 645),
     (mozjs_sym_array_pattern, 1827), (mozjs_sym_jsx_element, 638),
     (mozjs_sym_jsx_opening_element, 1152), (mozjs_sym_jsx_self_closing_element, 638),
     (mozjs_sym_class, 645), (mozjs_sym_function_expression, 645),
     (mozjs_sym_generator_function, 645), (mozjs_sym_arrow_function, 645),
     (mozjs_sym_call_expression, 645), (mozjs_sym_new_expression, 587),
     (mozjs_sym_await_expression, 638), (mozjs_sym_member_expression, 525),
     (mozjs_sym_subscript_expression, 525), (mozjs_sym_assignment_expression, 638),
     (mozjs_sym__augmented_assignment_lhs, 1145), (mozjs_sym_augmented_assignment_expression,
       638),
     (mozjs_sym__destructuring_pattern, 1827), (mozjs_sym_ternary_expression, 638),
     (mozjs_sym_binary_expression, 638), (mozjs_sym_unary_expression, 638),
     (mozjs_sym_update_expression, 638), (mozjs_sym_sequence_expression, 1871),
     (mozjs_sym_string, 645), (mozjs_sym_template_string, 645),
     (mozjs_sym_regex, 645), (mozjs_sym_meta_property, 645),
     (mozjs_sym_decorator, 1112), (mozjs_sym_formal_parameters, 1777),
     (mozjs_aux_sym_export_statement_repeat1, 1395), (mozjs_sym_identifier, 384),
     (mozjs_anon_sym_export, 386), (mozjs_anon_sym_LBRACE, 388),
     (mozjs_anon_sym_import, 390), (mozjs_anon_sym_let, 386),
     (mozjs_anon_sym_await, 392), (mozjs_anon_sym_LPAREN, 657),
     (mozjs_anon_sym_yield, 397), (mozjs_anon_sym_LBRACK, 661),
     (mozjs_anon_sym_LT, 827), (mozjs_anon_sym_DQUOTE, 407),
     (mozjs_anon_sym_SQUOTE, 409), (mozjs_anon_sym_class, 411),
     (mozjs_anon_sym_async, 413), (mozjs_anon_sym_function, 415),
     (mozjs_anon_sym_new, 419), (mozjs_anon_sym_PLUS, 427),
     (mozjs_anon_sym_DASH, 427), (mozjs_anon_sym_SLASH, 665),
     (mozjs_anon_sym_BANG, 429), (mozjs_anon_sym_TILDE, 429),
     (mozjs_anon_sym_typeof, 427), (mozjs_anon_sym_void, 427),
     (mozjs_anon_sym_delete, 427), (mozjs_anon_sym_PLUS_PLUS, 667),
     (mozjs_anon_sym_DASH_DASH, 667), (mozjs_sym_comment, 5),
     (mozjs_anon_sym_BQUOTE, 669), (mozjs_sym_number, 437),
     (mozjs_sym_private_property_identifier, 439), (mozjs_sym_this, 441),
     (mozjs_sym_super, 441), (mozjs_sym_true, 441),
     (mozjs_sym_false, 441), (mozjs_sym_null, 441),
     (mozjs_sym_undefined, 443), (mozjs_anon_sym_AT, 93),
     (mozjs_anon_sym_static, 386), (mozjs_anon_sym_get, 386),
     (mozjs_anon_sym_set, 386), (mozjs_sym_html_comment, 5)]"

definition mozjs_parse_row_160 :: "(TSSymbol \<times> nat) list" where
  "mozjs_parse_row_160 =
    [(mozjs_sym_import, 1340), (mozjs_sym_statement_block, 632),
     (mozjs_sym_parenthesized_expression, 525), (mozjs_sym_expression, 665),
     (mozjs_sym_primary_expression, 584), (mozjs_sym_yield_expression, 638),
     (mozjs_sym_object, 645), (mozjs_sym_object_pattern, 1827),
     (mozjs_sym_array, 645), (mozjs_sym_array_pattern, 1827),
     (mozjs_sym_jsx_element, 638), (mozjs_sym_jsx_opening_element, 1152),
     (mozjs_sym_jsx_self_closing_element, 638), (mozjs_sym_class, 645),
     (mozjs_sym_function_expression, 645), (mozjs_sym_generator_function, 645),
     (mozjs_sym_arrow_function, 645), (mozjs_sym_call_expression, 645),
     (mozjs_sym_new_expression, 587), (mozjs_sym_await_expression, 638),
     (mozjs_sym_member_expression, 525), (mozjs_sym_subscript_expression, 525),
     (mozjs_sym_assignment_expression, 638), (mozjs_sym__augmented_assignment_lhs, 1145),
     (mozjs_sym_augmented_assignment_expression, 638), (mozjs_sym__destructuring_pattern, 1827),
     (mozjs_sym_ternary_expression, 638), (mozjs_sym_binary_expression, 638),
     (mozjs_sym_unary_expression, 638), (mozjs_sym_update_expression, 638),
     (mozjs_sym_string, 645), (mozjs_sym_template_string, 645),
     (mozjs_sym_regex, 645), (mozjs_sym_meta_property, 645),
     (mozjs_sym_decorator, 1112), (mozjs_sym_formal_parameters, 1777),
     (mozjs_aux_sym_export_statement_repeat1, 1395), (mozjs_sym_identifier, 384),
     (mozjs_anon_sym_export, 386), (mozjs_anon_sym_LBRACE, 1010),
     (mozjs_anon_sym_import, 390), (mozjs_anon_sym_let, 386),
     (mozjs_anon_sym_await, 392), (mozjs_anon_sym_LPAREN, 657),
     (mozjs_anon_sym_yield, 397), (mozjs_anon_sym_LBRACK, 661),
     (mozjs_anon_sym_LT, 827), (mozjs_anon_sym_DQUOTE, 407),
     (mozjs_anon_sym_SQUOTE, 409), (mozjs_anon_sym_class, 411),
     (mozjs_anon_sym_async, 413), (mozjs_anon_sym_function, 415),
     (mozjs_anon_sym_new, 419), (mozjs_anon_sym_PLUS, 427),
     (mozjs_anon_sym_DASH, 427), (mozjs_anon_sym_SLASH, 665),
     (mozjs_anon_sym_BANG, 429), (mozjs_anon_sym_TILDE, 429),
     (mozjs_anon_sym_typeof, 427), (mozjs_anon_sym_void, 427),
     (mozjs_anon_sym_delete, 427), (mozjs_anon_sym_PLUS_PLUS, 667),
     (mozjs_anon_sym_DASH_DASH, 667), (mozjs_sym_comment, 5),
     (mozjs_anon_sym_BQUOTE, 669), (mozjs_sym_number, 437),
     (mozjs_sym_private_property_identifier, 439), (mozjs_sym_this, 441),
     (mozjs_sym_super, 441), (mozjs_sym_true, 441),
     (mozjs_sym_false, 441), (mozjs_sym_null, 441),
     (mozjs_sym_undefined, 443), (mozjs_anon_sym_AT, 93),
     (mozjs_anon_sym_static, 386), (mozjs_anon_sym_get, 386),
     (mozjs_anon_sym_set, 386), (mozjs_sym_html_comment, 5)]"

definition mozjs_parse_row_161 :: "(TSSymbol \<times> nat) list" where
  "mozjs_parse_row_161 =
    [(mozjs_sym_import, 1340), (mozjs_sym_parenthesized_expression, 525),
     (mozjs_sym_expression, 841), (mozjs_sym_primary_expression, 584),
     (mozjs_sym_yield_expression, 638), (mozjs_sym_object, 645),
     (mozjs_sym_object_pattern, 1827), (mozjs_sym_array, 645),
     (mozjs_sym_array_pattern, 1827), (mozjs_sym_jsx_element, 638),
     (mozjs_sym_jsx_opening_element, 1152), (mozjs_sym_jsx_self_closing_element, 638),
     (mozjs_sym_class, 645), (mozjs_sym_function_expression, 645),
     (mozjs_sym_generator_function, 645), (mozjs_sym_arrow_function, 645),
     (mozjs_sym_call_expression, 645), (mozjs_sym_new_expression, 587),
     (mozjs_sym_await_expression, 638), (mozjs_sym_member_expression, 525),
     (mozjs_sym_subscript_expression, 525), (mozjs_sym_assignment_expression, 638),
     (mozjs_sym__augmented_assignment_lhs, 1145), (mozjs_sym_augmented_assignment_expression,
       638),
     (mozjs_sym__destructuring_pattern, 1827), (mozjs_sym_ternary_expression, 638),
     (mozjs_sym_binary_expression, 638), (mozjs_sym_unary_expression, 638),
     (mozjs_sym_update_expression, 638), (mozjs_sym_sequence_expression, 1870),
     (mozjs_sym_string, 645), (mozjs_sym_template_string, 645),
     (mozjs_sym_regex, 645), (mozjs_sym_meta_property, 645),
     (mozjs_sym_decorator, 1112), (mozjs_sym_formal_parameters, 1777),
     (mozjs_aux_sym_export_statement_repeat1, 1395), (mozjs_sym_identifier, 384),
     (mozjs_anon_sym_export, 386), (mozjs_anon_sym_LBRACE, 388),
     (mozjs_anon_sym_import, 390), (mozjs_anon_sym_let, 386),
     (mozjs_anon_sym_await, 392), (mozjs_anon_sym_LPAREN, 657),
     (mozjs_anon_sym_yield, 397), (mozjs_anon_sym_LBRACK, 661),
     (mozjs_anon_sym_LT, 827), (mozjs_anon_sym_DQUOTE, 407),
     (mozjs_anon_sym_SQUOTE, 409), (mozjs_anon_sym_class, 411),
     (mozjs_anon_sym_async, 413), (mozjs_anon_sym_function, 415),
     (mozjs_anon_sym_new, 419), (mozjs_anon_sym_PLUS, 427),
     (mozjs_anon_sym_DASH, 427), (mozjs_anon_sym_SLASH, 665),
     (mozjs_anon_sym_BANG, 429), (mozjs_anon_sym_TILDE, 429),
     (mozjs_anon_sym_typeof, 427), (mozjs_anon_sym_void, 427),
     (mozjs_anon_sym_delete, 427), (mozjs_anon_sym_PLUS_PLUS, 667),
     (mozjs_anon_sym_DASH_DASH, 667), (mozjs_sym_comment, 5),
     (mozjs_anon_sym_BQUOTE, 669), (mozjs_sym_number, 437),
     (mozjs_sym_private_property_identifier, 439), (mozjs_sym_this, 441),
     (mozjs_sym_super, 441), (mozjs_sym_true, 441),
     (mozjs_sym_false, 441), (mozjs_sym_null, 441),
     (mozjs_sym_undefined, 443), (mozjs_anon_sym_AT, 93),
     (mozjs_anon_sym_static, 386), (mozjs_anon_sym_get, 386),
     (mozjs_anon_sym_set, 386), (mozjs_sym_html_comment, 5)]"

definition mozjs_parse_row_162 :: "(TSSymbol \<times> nat) list" where
  "mozjs_parse_row_162 =
    [(mozjs_sym_import, 1340), (mozjs_sym_parenthesized_expression, 525),
     (mozjs_sym_expression, 842), (mozjs_sym_primary_expression, 584),
     (mozjs_sym_yield_expression, 638), (mozjs_sym_object, 645),
     (mozjs_sym_object_pattern, 1827), (mozjs_sym_array, 645),
     (mozjs_sym_array_pattern, 1827), (mozjs_sym_jsx_element, 638),
     (mozjs_sym_jsx_opening_element, 1152), (mozjs_sym_jsx_self_closing_element, 638),
     (mozjs_sym_class, 645), (mozjs_sym_function_expression, 645),
     (mozjs_sym_generator_function, 645), (mozjs_sym_arrow_function, 645),
     (mozjs_sym_call_expression, 645), (mozjs_sym_new_expression, 587),
     (mozjs_sym_await_expression, 638), (mozjs_sym_member_expression, 525),
     (mozjs_sym_subscript_expression, 525), (mozjs_sym_assignment_expression, 638),
     (mozjs_sym__augmented_assignment_lhs, 1145), (mozjs_sym_augmented_assignment_expression,
       638),
     (mozjs_sym__destructuring_pattern, 1827), (mozjs_sym_ternary_expression, 638),
     (mozjs_sym_binary_expression, 638), (mozjs_sym_unary_expression, 638),
     (mozjs_sym_update_expression, 638), (mozjs_sym_sequence_expression, 1809),
     (mozjs_sym_string, 645), (mozjs_sym_template_string, 645),
     (mozjs_sym_regex, 645), (mozjs_sym_meta_property, 645),
     (mozjs_sym_decorator, 1112), (mozjs_sym_formal_parameters, 1777),
     (mozjs_aux_sym_export_statement_repeat1, 1395), (mozjs_sym_identifier, 384),
     (mozjs_anon_sym_export, 386), (mozjs_anon_sym_LBRACE, 388),
     (mozjs_anon_sym_import, 390), (mozjs_anon_sym_let, 386),
     (mozjs_anon_sym_await, 392), (mozjs_anon_sym_LPAREN, 657),
     (mozjs_anon_sym_yield, 397), (mozjs_anon_sym_LBRACK, 661),
     (mozjs_anon_sym_LT, 827), (mozjs_anon_sym_DQUOTE, 407),
     (mozjs_anon_sym_SQUOTE, 409), (mozjs_anon_sym_class, 411),
     (mozjs_anon_sym_async, 413), (mozjs_anon_sym_function, 415),
     (mozjs_anon_sym_new, 419), (mozjs_anon_sym_PLUS, 427),
     (mozjs_anon_sym_DASH, 427), (mozjs_anon_sym_SLASH, 665),
     (mozjs_anon_sym_BANG, 429), (mozjs_anon_sym_TILDE, 429),
     (mozjs_anon_sym_typeof, 427), (mozjs_anon_sym_void, 427),
     (mozjs_anon_sym_delete, 427), (mozjs_anon_sym_PLUS_PLUS, 667),
     (mozjs_anon_sym_DASH_DASH, 667), (mozjs_sym_comment, 5),
     (mozjs_anon_sym_BQUOTE, 669), (mozjs_sym_number, 437),
     (mozjs_sym_private_property_identifier, 439), (mozjs_sym_this, 441),
     (mozjs_sym_super, 441), (mozjs_sym_true, 441),
     (mozjs_sym_false, 441), (mozjs_sym_null, 441),
     (mozjs_sym_undefined, 443), (mozjs_anon_sym_AT, 93),
     (mozjs_anon_sym_static, 386), (mozjs_anon_sym_get, 386),
     (mozjs_anon_sym_set, 386), (mozjs_sym_html_comment, 5)]"

definition mozjs_parse_row_163 :: "(TSSymbol \<times> nat) list" where
  "mozjs_parse_row_163 =
    [(mozjs_sym_import, 1333), (mozjs_sym_statement_block, 809),
     (mozjs_sym_parenthesized_expression, 556), (mozjs_sym_expression, 763),
     (mozjs_sym_primary_expression, 693), (mozjs_sym_yield_expression, 743),
     (mozjs_sym_object, 793), (mozjs_sym_object_pattern, 1845),
     (mozjs_sym_array, 793), (mozjs_sym_array_pattern, 1845),
     (mozjs_sym_jsx_element, 743), (mozjs_sym_jsx_opening_element, 1158),
     (mozjs_sym_jsx_self_closing_element, 743), (mozjs_sym_class, 793),
     (mozjs_sym_function_expression, 793), (mozjs_sym_generator_function, 793),
     (mozjs_sym_arrow_function, 793), (mozjs_sym_call_expression, 793),
     (mozjs_sym_new_expression, 692), (mozjs_sym_await_expression, 743),
     (mozjs_sym_member_expression, 556), (mozjs_sym_subscript_expression, 556),
     (mozjs_sym_assignment_expression, 743), (mozjs_sym__augmented_assignment_lhs, 1146),
     (mozjs_sym_augmented_assignment_expression, 743), (mozjs_sym__destructuring_pattern, 1845),
     (mozjs_sym_ternary_expression, 743), (mozjs_sym_binary_expression, 743),
     (mozjs_sym_unary_expression, 743), (mozjs_sym_update_expression, 743),
     (mozjs_sym_string, 793), (mozjs_sym_template_string, 793),
     (mozjs_sym_regex, 793), (mozjs_sym_meta_property, 793),
     (mozjs_sym_decorator, 1112), (mozjs_sym_formal_parameters, 1847),
     (mozjs_aux_sym_export_statement_repeat1, 1331), (mozjs_sym_identifier, 303),
     (mozjs_anon_sym_export, 305), (mozjs_anon_sym_LBRACE, 996),
     (mozjs_anon_sym_import, 315), (mozjs_anon_sym_let, 305),
     (mozjs_anon_sym_await, 319), (mozjs_anon_sym_LPAREN, 37),
     (mozjs_anon_sym_yield, 57), (mozjs_anon_sym_LBRACK, 59),
     (mozjs_anon_sym_LT, 61), (mozjs_anon_sym_DQUOTE, 63),
     (mozjs_anon_sym_SQUOTE, 65), (mozjs_anon_sym_class, 336),
     (mozjs_anon_sym_async, 338), (mozjs_anon_sym_function, 340),
     (mozjs_anon_sym_new, 73), (mozjs_anon_sym_PLUS, 75),
     (mozjs_anon_sym_DASH, 75), (mozjs_anon_sym_SLASH, 77),
     (mozjs_anon_sym_BANG, 79), (mozjs_anon_sym_TILDE, 79),
     (mozjs_anon_sym_typeof, 75), (mozjs_anon_sym_void, 75),
     (mozjs_anon_sym_delete, 75), (mozjs_anon_sym_PLUS_PLUS, 81),
     (mozjs_anon_sym_DASH_DASH, 81), (mozjs_sym_comment, 5),
     (mozjs_anon_sym_BQUOTE, 83), (mozjs_sym_number, 85),
     (mozjs_sym_private_property_identifier, 358), (mozjs_sym_this, 89),
     (mozjs_sym_super, 89), (mozjs_sym_true, 89),
     (mozjs_sym_false, 89), (mozjs_sym_null, 89),
     (mozjs_sym_undefined, 91), (mozjs_anon_sym_AT, 93),
     (mozjs_anon_sym_static, 305), (mozjs_anon_sym_get, 305),
     (mozjs_anon_sym_set, 305), (mozjs_sym_html_comment, 5)]"

definition mozjs_parse_row_164 :: "(TSSymbol \<times> nat) list" where
  "mozjs_parse_row_164 =
    [(mozjs_sym_import, 1340), (mozjs_sym_statement_block, 637),
     (mozjs_sym_parenthesized_expression, 525), (mozjs_sym_expression, 677),
     (mozjs_sym_primary_expression, 584), (mozjs_sym_yield_expression, 638),
     (mozjs_sym_object, 645), (mozjs_sym_object_pattern, 1827),
     (mozjs_sym_array, 645), (mozjs_sym_array_pattern, 1827),
     (mozjs_sym_jsx_element, 638), (mozjs_sym_jsx_opening_element, 1152),
     (mozjs_sym_jsx_self_closing_element, 638), (mozjs_sym_class, 645),
     (mozjs_sym_function_expression, 645), (mozjs_sym_generator_function, 645),
     (mozjs_sym_arrow_function, 645), (mozjs_sym_call_expression, 645),
     (mozjs_sym_new_expression, 587), (mozjs_sym_await_expression, 638),
     (mozjs_sym_member_expression, 525), (mozjs_sym_subscript_expression, 525),
     (mozjs_sym_assignment_expression, 638), (mozjs_sym__augmented_assignment_lhs, 1145),
     (mozjs_sym_augmented_assignment_expression, 638), (mozjs_sym__destructuring_pattern, 1827),
     (mozjs_sym_ternary_expression, 638), (mozjs_sym_binary_expression, 638),
     (mozjs_sym_unary_expression, 638), (mozjs_sym_update_expression, 638),
     (mozjs_sym_string, 645), (mozjs_sym_template_string, 645),
     (mozjs_sym_regex, 645), (mozjs_sym_meta_property, 645),
     (mozjs_sym_decorator, 1112), (mozjs_sym_formal_parameters, 1777),
     (mozjs_aux_sym_export_statement_repeat1, 1395), (mozjs_sym_identifier, 384),
     (mozjs_anon_sym_export, 386), (mozjs_anon_sym_LBRACE, 1010),
     (mozjs_anon_sym_import, 390), (mozjs_anon_sym_let, 386),
     (mozjs_anon_sym_await, 392), (mozjs_anon_sym_LPAREN, 657),
     (mozjs_anon_sym_yield, 397), (mozjs_anon_sym_LBRACK, 661),
     (mozjs_anon_sym_LT, 827), (mozjs_anon_sym_DQUOTE, 407),
     (mozjs_anon_sym_SQUOTE, 409), (mozjs_anon_sym_class, 411),
     (mozjs_anon_sym_async, 413), (mozjs_anon_sym_function, 415),
     (mozjs_anon_sym_new, 419), (mozjs_anon_sym_PLUS, 427),
     (mozjs_anon_sym_DASH, 427), (mozjs_anon_sym_SLASH, 665),
     (mozjs_anon_sym_BANG, 429), (mozjs_anon_sym_TILDE, 429),
     (mozjs_anon_sym_typeof, 427), (mozjs_anon_sym_void, 427),
     (mozjs_anon_sym_delete, 427), (mozjs_anon_sym_PLUS_PLUS, 667),
     (mozjs_anon_sym_DASH_DASH, 667), (mozjs_sym_comment, 5),
     (mozjs_anon_sym_BQUOTE, 669), (mozjs_sym_number, 437),
     (mozjs_sym_private_property_identifier, 439), (mozjs_sym_this, 441),
     (mozjs_sym_super, 441), (mozjs_sym_true, 441),
     (mozjs_sym_false, 441), (mozjs_sym_null, 441),
     (mozjs_sym_undefined, 443), (mozjs_anon_sym_AT, 93),
     (mozjs_anon_sym_static, 386), (mozjs_anon_sym_get, 386),
     (mozjs_anon_sym_set, 386), (mozjs_sym_html_comment, 5)]"

definition mozjs_parse_row_165 :: "(TSSymbol \<times> nat) list" where
  "mozjs_parse_row_165 =
    [(mozjs_sym_import, 1340), (mozjs_sym_parenthesized_expression, 499),
     (mozjs_sym_expression, 985), (mozjs_sym_primary_expression, 582),
     (mozjs_sym_yield_expression, 638), (mozjs_sym_object, 645),
     (mozjs_sym_object_pattern, 1766), (mozjs_sym_array, 645),
     (mozjs_sym_array_pattern, 1766), (mozjs_sym_jsx_element, 638),
     (mozjs_sym_jsx_opening_element, 1152), (mozjs_sym_jsx_self_closing_element, 638),
     (mozjs_sym_class, 645), (mozjs_sym_function_expression, 645),
     (mozjs_sym_generator_function, 645), (mozjs_sym_arrow_function, 645),
     (mozjs_sym_call_expression, 645), (mozjs_sym_new_expression, 583),
     (mozjs_sym_await_expression, 638), (mozjs_sym_member_expression, 499),
     (mozjs_sym_subscript_expression, 499), (mozjs_sym_assignment_expression, 638),
     (mozjs_sym__augmented_assignment_lhs, 1144), (mozjs_sym_augmented_assignment_expression,
       638),
     (mozjs_sym__destructuring_pattern, 1766), (mozjs_sym_ternary_expression, 638),
     (mozjs_sym_binary_expression, 638), (mozjs_sym_unary_expression, 638),
     (mozjs_sym_update_expression, 638), (mozjs_sym_string, 645),
     (mozjs_sym_template_string, 645), (mozjs_sym_regex, 645),
     (mozjs_sym_meta_property, 645), (mozjs_sym_decorator, 1112),
     (mozjs_sym_formal_parameters, 1838), (mozjs_aux_sym_export_statement_repeat1, 1395),
     (mozjs_sym_identifier, 1012), (mozjs_anon_sym_export, 1014),
     (mozjs_anon_sym_LBRACE, 465), (mozjs_anon_sym_import, 390),
     (mozjs_anon_sym_let, 1014), (mozjs_anon_sym_await, 1016),
     (mozjs_anon_sym_LPAREN, 657), (mozjs_anon_sym_yield, 469),
     (mozjs_anon_sym_LBRACK, 683), (mozjs_anon_sym_LT, 827),
     (mozjs_anon_sym_DOT, 1006), (mozjs_anon_sym_DQUOTE, 407),
     (mozjs_anon_sym_SQUOTE, 409), (mozjs_anon_sym_class, 411),
     (mozjs_anon_sym_async, 1018), (mozjs_anon_sym_function, 415),
     (mozjs_anon_sym_new, 637), (mozjs_anon_sym_PLUS, 483),
     (mozjs_anon_sym_DASH, 483), (mozjs_anon_sym_SLASH, 665),
     (mozjs_anon_sym_BANG, 485), (mozjs_anon_sym_TILDE, 485),
     (mozjs_anon_sym_typeof, 483), (mozjs_anon_sym_void, 483),
     (mozjs_anon_sym_delete, 483), (mozjs_anon_sym_PLUS_PLUS, 691),
     (mozjs_anon_sym_DASH_DASH, 691), (mozjs_sym_comment, 5),
     (mozjs_anon_sym_BQUOTE, 669), (mozjs_sym_number, 437),
     (mozjs_sym_private_property_identifier, 490), (mozjs_sym_this, 441),
     (mozjs_sym_super, 441), (mozjs_sym_true, 441),
     (mozjs_sym_false, 441), (mozjs_sym_null, 441),
     (mozjs_sym_undefined, 492), (mozjs_anon_sym_AT, 93),
     (mozjs_anon_sym_static, 1014), (mozjs_anon_sym_get, 1014),
     (mozjs_anon_sym_set, 1014), (mozjs_sym_html_comment, 5)]"

definition mozjs_parse_row_166 :: "(TSSymbol \<times> nat) list" where
  "mozjs_parse_row_166 =
    [(mozjs_sym_import, 1340), (mozjs_sym_parenthesized_expression, 525),
     (mozjs_sym_expression, 836), (mozjs_sym_primary_expression, 584),
     (mozjs_sym_yield_expression, 638), (mozjs_sym_object, 645),
     (mozjs_sym_object_pattern, 1827), (mozjs_sym_array, 645),
     (mozjs_sym_array_pattern, 1827), (mozjs_sym_jsx_element, 638),
     (mozjs_sym_jsx_opening_element, 1152), (mozjs_sym_jsx_self_closing_element, 638),
     (mozjs_sym_class, 645), (mozjs_sym_function_expression, 645),
     (mozjs_sym_generator_function, 645), (mozjs_sym_arrow_function, 645),
     (mozjs_sym_call_expression, 645), (mozjs_sym_new_expression, 587),
     (mozjs_sym_await_expression, 638), (mozjs_sym_member_expression, 525),
     (mozjs_sym_subscript_expression, 525), (mozjs_sym_assignment_expression, 638),
     (mozjs_sym__augmented_assignment_lhs, 1145), (mozjs_sym_augmented_assignment_expression,
       638),
     (mozjs_sym__destructuring_pattern, 1827), (mozjs_sym_ternary_expression, 638),
     (mozjs_sym_binary_expression, 638), (mozjs_sym_unary_expression, 638),
     (mozjs_sym_update_expression, 638), (mozjs_sym_sequence_expression, 1856),
     (mozjs_sym_string, 645), (mozjs_sym_template_string, 645),
     (mozjs_sym_regex, 645), (mozjs_sym_meta_property, 645),
     (mozjs_sym_decorator, 1112), (mozjs_sym_formal_parameters, 1777),
     (mozjs_aux_sym_export_statement_repeat1, 1395), (mozjs_sym_identifier, 384),
     (mozjs_anon_sym_export, 386), (mozjs_anon_sym_LBRACE, 388),
     (mozjs_anon_sym_import, 390), (mozjs_anon_sym_let, 386),
     (mozjs_anon_sym_await, 392), (mozjs_anon_sym_LPAREN, 657),
     (mozjs_anon_sym_yield, 397), (mozjs_anon_sym_LBRACK, 661),
     (mozjs_anon_sym_LT, 827), (mozjs_anon_sym_DQUOTE, 407),
     (mozjs_anon_sym_SQUOTE, 409), (mozjs_anon_sym_class, 411),
     (mozjs_anon_sym_async, 413), (mozjs_anon_sym_function, 415),
     (mozjs_anon_sym_new, 419), (mozjs_anon_sym_PLUS, 427),
     (mozjs_anon_sym_DASH, 427), (mozjs_anon_sym_SLASH, 665),
     (mozjs_anon_sym_BANG, 429), (mozjs_anon_sym_TILDE, 429),
     (mozjs_anon_sym_typeof, 427), (mozjs_anon_sym_void, 427),
     (mozjs_anon_sym_delete, 427), (mozjs_anon_sym_PLUS_PLUS, 667),
     (mozjs_anon_sym_DASH_DASH, 667), (mozjs_sym_comment, 5),
     (mozjs_anon_sym_BQUOTE, 669), (mozjs_sym_number, 437),
     (mozjs_sym_private_property_identifier, 439), (mozjs_sym_this, 441),
     (mozjs_sym_super, 441), (mozjs_sym_true, 441),
     (mozjs_sym_false, 441), (mozjs_sym_null, 441),
     (mozjs_sym_undefined, 443), (mozjs_anon_sym_AT, 93),
     (mozjs_anon_sym_static, 386), (mozjs_anon_sym_get, 386),
     (mozjs_anon_sym_set, 386), (mozjs_sym_html_comment, 5)]"

definition mozjs_parse_row_167 :: "(TSSymbol \<times> nat) list" where
  "mozjs_parse_row_167 =
    [(mozjs_sym_import, 1333), (mozjs_sym_parenthesized_expression, 556),
     (mozjs_sym_expression, 832), (mozjs_sym_primary_expression, 693),
     (mozjs_sym_yield_expression, 743), (mozjs_sym_object, 793),
     (mozjs_sym_object_pattern, 1845), (mozjs_sym_array, 793),
     (mozjs_sym_array_pattern, 1845), (mozjs_sym_jsx_element, 743),
     (mozjs_sym_jsx_opening_element, 1158), (mozjs_sym_jsx_self_closing_element, 743),
     (mozjs_sym_class, 793), (mozjs_sym_function_expression, 793),
     (mozjs_sym_generator_function, 793), (mozjs_sym_arrow_function, 793),
     (mozjs_sym_call_expression, 793), (mozjs_sym_new_expression, 692),
     (mozjs_sym_await_expression, 743), (mozjs_sym_member_expression, 556),
     (mozjs_sym_subscript_expression, 556), (mozjs_sym_assignment_expression, 743),
     (mozjs_sym__augmented_assignment_lhs, 1146), (mozjs_sym_augmented_assignment_expression,
       743),
     (mozjs_sym__destructuring_pattern, 1845), (mozjs_sym_ternary_expression, 743),
     (mozjs_sym_binary_expression, 743), (mozjs_sym_unary_expression, 743),
     (mozjs_sym_update_expression, 743), (mozjs_sym_sequence_expression, 1619),
     (mozjs_sym_string, 793), (mozjs_sym_template_string, 793),
     (mozjs_sym_regex, 793), (mozjs_sym_meta_property, 793),
     (mozjs_sym_decorator, 1112), (mozjs_sym_formal_parameters, 1847),
     (mozjs_aux_sym_export_statement_repeat1, 1331), (mozjs_sym_identifier, 303),
     (mozjs_anon_sym_export, 305), (mozjs_anon_sym_LBRACE, 309),
     (mozjs_anon_sym_import, 315), (mozjs_anon_sym_let, 305),
     (mozjs_anon_sym_await, 319), (mozjs_anon_sym_LPAREN, 37),
     (mozjs_anon_sym_yield, 57), (mozjs_anon_sym_LBRACK, 59),
     (mozjs_anon_sym_LT, 61), (mozjs_anon_sym_DQUOTE, 63),
     (mozjs_anon_sym_SQUOTE, 65), (mozjs_anon_sym_class, 336),
     (mozjs_anon_sym_async, 338), (mozjs_anon_sym_function, 340),
     (mozjs_anon_sym_new, 73), (mozjs_anon_sym_PLUS, 75),
     (mozjs_anon_sym_DASH, 75), (mozjs_anon_sym_SLASH, 77),
     (mozjs_anon_sym_BANG, 79), (mozjs_anon_sym_TILDE, 79),
     (mozjs_anon_sym_typeof, 75), (mozjs_anon_sym_void, 75),
     (mozjs_anon_sym_delete, 75), (mozjs_anon_sym_PLUS_PLUS, 81),
     (mozjs_anon_sym_DASH_DASH, 81), (mozjs_sym_comment, 5),
     (mozjs_anon_sym_BQUOTE, 83), (mozjs_sym_number, 85),
     (mozjs_sym_private_property_identifier, 358), (mozjs_sym_this, 89),
     (mozjs_sym_super, 89), (mozjs_sym_true, 89),
     (mozjs_sym_false, 89), (mozjs_sym_null, 89),
     (mozjs_sym_undefined, 91), (mozjs_anon_sym_AT, 93),
     (mozjs_anon_sym_static, 305), (mozjs_anon_sym_get, 305),
     (mozjs_anon_sym_set, 305), (mozjs_sym_html_comment, 5)]"

definition mozjs_parse_row_168 :: "(TSSymbol \<times> nat) list" where
  "mozjs_parse_row_168 =
    [(mozjs_sym_import, 1333), (mozjs_sym_statement_block, 747),
     (mozjs_sym_parenthesized_expression, 556), (mozjs_sym_expression, 749),
     (mozjs_sym_primary_expression, 693), (mozjs_sym_yield_expression, 743),
     (mozjs_sym_object, 793), (mozjs_sym_object_pattern, 1845),
     (mozjs_sym_array, 793), (mozjs_sym_array_pattern, 1845),
     (mozjs_sym_jsx_element, 743), (mozjs_sym_jsx_opening_element, 1158),
     (mozjs_sym_jsx_self_closing_element, 743), (mozjs_sym_class, 793),
     (mozjs_sym_function_expression, 793), (mozjs_sym_generator_function, 793),
     (mozjs_sym_arrow_function, 793), (mozjs_sym_call_expression, 793),
     (mozjs_sym_new_expression, 692), (mozjs_sym_await_expression, 743),
     (mozjs_sym_member_expression, 556), (mozjs_sym_subscript_expression, 556),
     (mozjs_sym_assignment_expression, 743), (mozjs_sym__augmented_assignment_lhs, 1146),
     (mozjs_sym_augmented_assignment_expression, 743), (mozjs_sym__destructuring_pattern, 1845),
     (mozjs_sym_ternary_expression, 743), (mozjs_sym_binary_expression, 743),
     (mozjs_sym_unary_expression, 743), (mozjs_sym_update_expression, 743),
     (mozjs_sym_string, 793), (mozjs_sym_template_string, 793),
     (mozjs_sym_regex, 793), (mozjs_sym_meta_property, 793),
     (mozjs_sym_decorator, 1112), (mozjs_sym_formal_parameters, 1847),
     (mozjs_aux_sym_export_statement_repeat1, 1331), (mozjs_sym_identifier, 303),
     (mozjs_anon_sym_export, 305), (mozjs_anon_sym_LBRACE, 996),
     (mozjs_anon_sym_import, 315), (mozjs_anon_sym_let, 305),
     (mozjs_anon_sym_await, 319), (mozjs_anon_sym_LPAREN, 37),
     (mozjs_anon_sym_yield, 57), (mozjs_anon_sym_LBRACK, 59),
     (mozjs_anon_sym_LT, 61), (mozjs_anon_sym_DQUOTE, 63),
     (mozjs_anon_sym_SQUOTE, 65), (mozjs_anon_sym_class, 336),
     (mozjs_anon_sym_async, 338), (mozjs_anon_sym_function, 340),
     (mozjs_anon_sym_new, 73), (mozjs_anon_sym_PLUS, 75),
     (mozjs_anon_sym_DASH, 75), (mozjs_anon_sym_SLASH, 77),
     (mozjs_anon_sym_BANG, 79), (mozjs_anon_sym_TILDE, 79),
     (mozjs_anon_sym_typeof, 75), (mozjs_anon_sym_void, 75),
     (mozjs_anon_sym_delete, 75), (mozjs_anon_sym_PLUS_PLUS, 81),
     (mozjs_anon_sym_DASH_DASH, 81), (mozjs_sym_comment, 5),
     (mozjs_anon_sym_BQUOTE, 83), (mozjs_sym_number, 85),
     (mozjs_sym_private_property_identifier, 358), (mozjs_sym_this, 89),
     (mozjs_sym_super, 89), (mozjs_sym_true, 89),
     (mozjs_sym_false, 89), (mozjs_sym_null, 89),
     (mozjs_sym_undefined, 91), (mozjs_anon_sym_AT, 93),
     (mozjs_anon_sym_static, 305), (mozjs_anon_sym_get, 305),
     (mozjs_anon_sym_set, 305), (mozjs_sym_html_comment, 5)]"

definition mozjs_parse_row_169 :: "(TSSymbol \<times> nat) list" where
  "mozjs_parse_row_169 =
    [(mozjs_sym_import, 1333), (mozjs_sym_statement_block, 738),
     (mozjs_sym_parenthesized_expression, 556), (mozjs_sym_expression, 752),
     (mozjs_sym_primary_expression, 693), (mozjs_sym_yield_expression, 743),
     (mozjs_sym_object, 793), (mozjs_sym_object_pattern, 1845),
     (mozjs_sym_array, 793), (mozjs_sym_array_pattern, 1845),
     (mozjs_sym_jsx_element, 743), (mozjs_sym_jsx_opening_element, 1158),
     (mozjs_sym_jsx_self_closing_element, 743), (mozjs_sym_class, 793),
     (mozjs_sym_function_expression, 793), (mozjs_sym_generator_function, 793),
     (mozjs_sym_arrow_function, 793), (mozjs_sym_call_expression, 793),
     (mozjs_sym_new_expression, 692), (mozjs_sym_await_expression, 743),
     (mozjs_sym_member_expression, 556), (mozjs_sym_subscript_expression, 556),
     (mozjs_sym_assignment_expression, 743), (mozjs_sym__augmented_assignment_lhs, 1146),
     (mozjs_sym_augmented_assignment_expression, 743), (mozjs_sym__destructuring_pattern, 1845),
     (mozjs_sym_ternary_expression, 743), (mozjs_sym_binary_expression, 743),
     (mozjs_sym_unary_expression, 743), (mozjs_sym_update_expression, 743),
     (mozjs_sym_string, 793), (mozjs_sym_template_string, 793),
     (mozjs_sym_regex, 793), (mozjs_sym_meta_property, 793),
     (mozjs_sym_decorator, 1112), (mozjs_sym_formal_parameters, 1847),
     (mozjs_aux_sym_export_statement_repeat1, 1331), (mozjs_sym_identifier, 303),
     (mozjs_anon_sym_export, 305), (mozjs_anon_sym_LBRACE, 996),
     (mozjs_anon_sym_import, 315), (mozjs_anon_sym_let, 305),
     (mozjs_anon_sym_await, 319), (mozjs_anon_sym_LPAREN, 37),
     (mozjs_anon_sym_yield, 57), (mozjs_anon_sym_LBRACK, 59),
     (mozjs_anon_sym_LT, 61), (mozjs_anon_sym_DQUOTE, 63),
     (mozjs_anon_sym_SQUOTE, 65), (mozjs_anon_sym_class, 336),
     (mozjs_anon_sym_async, 338), (mozjs_anon_sym_function, 340),
     (mozjs_anon_sym_new, 73), (mozjs_anon_sym_PLUS, 75),
     (mozjs_anon_sym_DASH, 75), (mozjs_anon_sym_SLASH, 77),
     (mozjs_anon_sym_BANG, 79), (mozjs_anon_sym_TILDE, 79),
     (mozjs_anon_sym_typeof, 75), (mozjs_anon_sym_void, 75),
     (mozjs_anon_sym_delete, 75), (mozjs_anon_sym_PLUS_PLUS, 81),
     (mozjs_anon_sym_DASH_DASH, 81), (mozjs_sym_comment, 5),
     (mozjs_anon_sym_BQUOTE, 83), (mozjs_sym_number, 85),
     (mozjs_sym_private_property_identifier, 358), (mozjs_sym_this, 89),
     (mozjs_sym_super, 89), (mozjs_sym_true, 89),
     (mozjs_sym_false, 89), (mozjs_sym_null, 89),
     (mozjs_sym_undefined, 91), (mozjs_anon_sym_AT, 93),
     (mozjs_anon_sym_static, 305), (mozjs_anon_sym_get, 305),
     (mozjs_anon_sym_set, 305), (mozjs_sym_html_comment, 5)]"

definition mozjs_parse_row_170 :: "(TSSymbol \<times> nat) list" where
  "mozjs_parse_row_170 =
    [(mozjs_sym_import, 1333), (mozjs_sym_statement_block, 791),
     (mozjs_sym_parenthesized_expression, 556), (mozjs_sym_expression, 785),
     (mozjs_sym_primary_expression, 693), (mozjs_sym_yield_expression, 743),
     (mozjs_sym_object, 793), (mozjs_sym_object_pattern, 1845),
     (mozjs_sym_array, 793), (mozjs_sym_array_pattern, 1845),
     (mozjs_sym_jsx_element, 743), (mozjs_sym_jsx_opening_element, 1158),
     (mozjs_sym_jsx_self_closing_element, 743), (mozjs_sym_class, 793),
     (mozjs_sym_function_expression, 793), (mozjs_sym_generator_function, 793),
     (mozjs_sym_arrow_function, 793), (mozjs_sym_call_expression, 793),
     (mozjs_sym_new_expression, 692), (mozjs_sym_await_expression, 743),
     (mozjs_sym_member_expression, 556), (mozjs_sym_subscript_expression, 556),
     (mozjs_sym_assignment_expression, 743), (mozjs_sym__augmented_assignment_lhs, 1146),
     (mozjs_sym_augmented_assignment_expression, 743), (mozjs_sym__destructuring_pattern, 1845),
     (mozjs_sym_ternary_expression, 743), (mozjs_sym_binary_expression, 743),
     (mozjs_sym_unary_expression, 743), (mozjs_sym_update_expression, 743),
     (mozjs_sym_string, 793), (mozjs_sym_template_string, 793),
     (mozjs_sym_regex, 793), (mozjs_sym_meta_property, 793),
     (mozjs_sym_decorator, 1112), (mozjs_sym_formal_parameters, 1847),
     (mozjs_aux_sym_export_statement_repeat1, 1331), (mozjs_sym_identifier, 303),
     (mozjs_anon_sym_export, 305), (mozjs_anon_sym_LBRACE, 996),
     (mozjs_anon_sym_import, 315), (mozjs_anon_sym_let, 305),
     (mozjs_anon_sym_await, 319), (mozjs_anon_sym_LPAREN, 37),
     (mozjs_anon_sym_yield, 57), (mozjs_anon_sym_LBRACK, 59),
     (mozjs_anon_sym_LT, 61), (mozjs_anon_sym_DQUOTE, 63),
     (mozjs_anon_sym_SQUOTE, 65), (mozjs_anon_sym_class, 336),
     (mozjs_anon_sym_async, 338), (mozjs_anon_sym_function, 340),
     (mozjs_anon_sym_new, 73), (mozjs_anon_sym_PLUS, 75),
     (mozjs_anon_sym_DASH, 75), (mozjs_anon_sym_SLASH, 77),
     (mozjs_anon_sym_BANG, 79), (mozjs_anon_sym_TILDE, 79),
     (mozjs_anon_sym_typeof, 75), (mozjs_anon_sym_void, 75),
     (mozjs_anon_sym_delete, 75), (mozjs_anon_sym_PLUS_PLUS, 81),
     (mozjs_anon_sym_DASH_DASH, 81), (mozjs_sym_comment, 5),
     (mozjs_anon_sym_BQUOTE, 83), (mozjs_sym_number, 85),
     (mozjs_sym_private_property_identifier, 358), (mozjs_sym_this, 89),
     (mozjs_sym_super, 89), (mozjs_sym_true, 89),
     (mozjs_sym_false, 89), (mozjs_sym_null, 89),
     (mozjs_sym_undefined, 91), (mozjs_anon_sym_AT, 93),
     (mozjs_anon_sym_static, 305), (mozjs_anon_sym_get, 305),
     (mozjs_anon_sym_set, 305), (mozjs_sym_html_comment, 5)]"

definition mozjs_parse_row_171 :: "(TSSymbol \<times> nat) list" where
  "mozjs_parse_row_171 =
    [(mozjs_sym_import, 1340), (mozjs_sym_parenthesized_expression, 525),
     (mozjs_sym_expression, 876), (mozjs_sym_primary_expression, 584),
     (mozjs_sym_yield_expression, 638), (mozjs_sym_object, 645),
     (mozjs_sym_object_pattern, 1827), (mozjs_sym_array, 645),
     (mozjs_sym_array_pattern, 1827), (mozjs_sym_jsx_element, 638),
     (mozjs_sym_jsx_opening_element, 1152), (mozjs_sym_jsx_self_closing_element, 638),
     (mozjs_sym_class, 645), (mozjs_sym_function_expression, 645),
     (mozjs_sym_generator_function, 645), (mozjs_sym_arrow_function, 645),
     (mozjs_sym_call_expression, 645), (mozjs_sym_new_expression, 587),
     (mozjs_sym_await_expression, 638), (mozjs_sym_member_expression, 525),
     (mozjs_sym_subscript_expression, 525), (mozjs_sym_assignment_expression, 638),
     (mozjs_sym__augmented_assignment_lhs, 1145), (mozjs_sym_augmented_assignment_expression,
       638),
     (mozjs_sym__destructuring_pattern, 1827), (mozjs_sym_ternary_expression, 638),
     (mozjs_sym_binary_expression, 638), (mozjs_sym_unary_expression, 638),
     (mozjs_sym_update_expression, 638), (mozjs_sym_sequence_expression, 1805),
     (mozjs_sym_string, 645), (mozjs_sym_template_string, 645),
     (mozjs_sym_regex, 645), (mozjs_sym_meta_property, 645),
     (mozjs_sym_decorator, 1112), (mozjs_sym_formal_parameters, 1777),
     (mozjs_aux_sym_export_statement_repeat1, 1395), (mozjs_sym_identifier, 384),
     (mozjs_anon_sym_export, 386), (mozjs_anon_sym_LBRACE, 388),
     (mozjs_anon_sym_import, 390), (mozjs_anon_sym_let, 386),
     (mozjs_anon_sym_await, 392), (mozjs_anon_sym_LPAREN, 657),
     (mozjs_anon_sym_yield, 397), (mozjs_anon_sym_LBRACK, 661),
     (mozjs_anon_sym_LT, 827), (mozjs_anon_sym_DQUOTE, 407),
     (mozjs_anon_sym_SQUOTE, 409), (mozjs_anon_sym_class, 411),
     (mozjs_anon_sym_async, 413), (mozjs_anon_sym_function, 415),
     (mozjs_anon_sym_new, 419), (mozjs_anon_sym_PLUS, 427),
     (mozjs_anon_sym_DASH, 427), (mozjs_anon_sym_SLASH, 665),
     (mozjs_anon_sym_BANG, 429), (mozjs_anon_sym_TILDE, 429),
     (mozjs_anon_sym_typeof, 427), (mozjs_anon_sym_void, 427),
     (mozjs_anon_sym_delete, 427), (mozjs_anon_sym_PLUS_PLUS, 667),
     (mozjs_anon_sym_DASH_DASH, 667), (mozjs_sym_comment, 5),
     (mozjs_anon_sym_BQUOTE, 669), (mozjs_sym_number, 437),
     (mozjs_sym_private_property_identifier, 439), (mozjs_sym_this, 441),
     (mozjs_sym_super, 441), (mozjs_sym_true, 441),
     (mozjs_sym_false, 441), (mozjs_sym_null, 441),
     (mozjs_sym_undefined, 443), (mozjs_anon_sym_AT, 93),
     (mozjs_anon_sym_static, 386), (mozjs_anon_sym_get, 386),
     (mozjs_anon_sym_set, 386), (mozjs_sym_html_comment, 5)]"

definition mozjs_parse_row_172 :: "(TSSymbol \<times> nat) list" where
  "mozjs_parse_row_172 =
    [(mozjs_sym_namespace_export, 1633), (mozjs_sym_export_clause, 1400),
     (mozjs_sym_declaration, 441), (mozjs_sym_variable_declaration, 427),
     (mozjs_sym_lexical_declaration, 427), (mozjs_sym_using_declaration, 427),
     (mozjs_sym_class_declaration, 427), (mozjs_sym_function_declaration, 427),
     (mozjs_sym_generator_function_declaration, 427), (mozjs_sym_decorator, 1112),
     (mozjs_aux_sym_export_statement_repeat1, 1355), (mozjs_anon_sym_STAR, 935),
     (mozjs_anon_sym_default, 1020), (mozjs_anon_sym_LBRACE, 939),
     (mozjs_anon_sym_COMMA, 311), (mozjs_anon_sym_var, 941),
     (mozjs_anon_sym_let, 943), (mozjs_anon_sym_const, 943),
     (mozjs_anon_sym_using, 945), (mozjs_anon_sym_await, 947),
     (mozjs_anon_sym_LPAREN, 311), (mozjs_anon_sym_SEMI, 311),
     (mozjs_anon_sym_in, 307), (mozjs_anon_sym_COLON, 501),
     (mozjs_anon_sym_EQ, 499), (mozjs_anon_sym_LBRACK, 311),
     (mozjs_anon_sym_LT, 307), (mozjs_anon_sym_GT, 307),
     (mozjs_anon_sym_DOT, 311), (mozjs_anon_sym_class, 952),
     (mozjs_anon_sym_async, 954), (mozjs_anon_sym_function, 956),
     (mozjs_anon_sym_EQ_GT, 342), (mozjs_sym_optional_chain, 311),
     (mozjs_anon_sym_PLUS_EQ, 344), (mozjs_anon_sym_DASH_EQ, 344),
     (mozjs_anon_sym_STAR_EQ, 344), (mozjs_anon_sym_SLASH_EQ, 344),
     (mozjs_anon_sym_PERCENT_EQ, 344), (mozjs_anon_sym_CARET_EQ, 344),
     (mozjs_anon_sym_AMP_EQ, 344), (mozjs_anon_sym_PIPE_EQ, 344),
     (mozjs_anon_sym_GT_GT_EQ, 344), (mozjs_anon_sym_GT_GT_GT_EQ, 344),
     (mozjs_anon_sym_LT_LT_EQ, 344), (mozjs_anon_sym_STAR_STAR_EQ, 344),
     (mozjs_anon_sym_AMP_AMP_EQ, 344), (mozjs_anon_sym_PIPE_PIPE_EQ, 344),
     (mozjs_anon_sym_QMARK_QMARK_EQ, 344), (mozjs_anon_sym_AMP_AMP, 307),
     (mozjs_anon_sym_PIPE_PIPE, 307), (mozjs_anon_sym_GT_GT, 307),
     (mozjs_anon_sym_GT_GT_GT, 307), (mozjs_anon_sym_LT_LT, 307),
     (mozjs_anon_sym_AMP, 307), (mozjs_anon_sym_CARET, 307),
     (mozjs_anon_sym_PIPE, 307), (mozjs_anon_sym_PLUS, 307),
     (mozjs_anon_sym_DASH, 307), (mozjs_anon_sym_SLASH, 307),
     (mozjs_anon_sym_PERCENT, 307), (mozjs_anon_sym_STAR_STAR, 307),
     (mozjs_anon_sym_LT_EQ, 311), (mozjs_anon_sym_EQ_EQ, 307),
     (mozjs_anon_sym_EQ_EQ_EQ, 311), (mozjs_anon_sym_BANG_EQ, 307),
     (mozjs_anon_sym_BANG_EQ_EQ, 311), (mozjs_anon_sym_GT_EQ, 311),
     (mozjs_anon_sym_QMARK_QMARK, 307), (mozjs_anon_sym_instanceof, 311),
     (mozjs_anon_sym_PLUS_PLUS, 311), (mozjs_anon_sym_DASH_DASH, 311),
     (mozjs_sym_comment, 5), (mozjs_anon_sym_BQUOTE, 311),
     (mozjs_anon_sym_AT, 93), (mozjs_sym__automatic_semicolon, 311),
     (mozjs_sym__ternary_qmark, 311), (mozjs_sym_html_comment, 5)]"

definition mozjs_parse_row_173 :: "(TSSymbol \<times> nat) list" where
  "mozjs_parse_row_173 =
    [(mozjs_sym_import, 1340), (mozjs_sym_parenthesized_expression, 525),
     (mozjs_sym_expression, 887), (mozjs_sym_primary_expression, 584),
     (mozjs_sym_yield_expression, 638), (mozjs_sym_object, 645),
     (mozjs_sym_object_pattern, 1827), (mozjs_sym_array, 645),
     (mozjs_sym_array_pattern, 1827), (mozjs_sym_jsx_element, 638),
     (mozjs_sym_jsx_opening_element, 1152), (mozjs_sym_jsx_self_closing_element, 638),
     (mozjs_sym_class, 645), (mozjs_sym_function_expression, 645),
     (mozjs_sym_generator_function, 645), (mozjs_sym_arrow_function, 645),
     (mozjs_sym_call_expression, 645), (mozjs_sym_new_expression, 587),
     (mozjs_sym_await_expression, 638), (mozjs_sym_member_expression, 525),
     (mozjs_sym_subscript_expression, 525), (mozjs_sym_assignment_expression, 638),
     (mozjs_sym__augmented_assignment_lhs, 1145), (mozjs_sym_augmented_assignment_expression,
       638),
     (mozjs_sym__destructuring_pattern, 1827), (mozjs_sym_ternary_expression, 638),
     (mozjs_sym_binary_expression, 638), (mozjs_sym_unary_expression, 638),
     (mozjs_sym_update_expression, 638), (mozjs_sym_sequence_expression, 1843),
     (mozjs_sym_string, 645), (mozjs_sym_template_string, 645),
     (mozjs_sym_regex, 645), (mozjs_sym_meta_property, 645),
     (mozjs_sym_decorator, 1112), (mozjs_sym_formal_parameters, 1777),
     (mozjs_aux_sym_export_statement_repeat1, 1395), (mozjs_sym_identifier, 384),
     (mozjs_anon_sym_export, 386), (mozjs_anon_sym_LBRACE, 388),
     (mozjs_anon_sym_import, 390), (mozjs_anon_sym_let, 386),
     (mozjs_anon_sym_await, 392), (mozjs_anon_sym_LPAREN, 657),
     (mozjs_anon_sym_yield, 397), (mozjs_anon_sym_LBRACK, 661),
     (mozjs_anon_sym_LT, 827), (mozjs_anon_sym_DQUOTE, 407),
     (mozjs_anon_sym_SQUOTE, 409), (mozjs_anon_sym_class, 411),
     (mozjs_anon_sym_async, 413), (mozjs_anon_sym_function, 415),
     (mozjs_anon_sym_new, 419), (mozjs_anon_sym_PLUS, 427),
     (mozjs_anon_sym_DASH, 427), (mozjs_anon_sym_SLASH, 665),
     (mozjs_anon_sym_BANG, 429), (mozjs_anon_sym_TILDE, 429),
     (mozjs_anon_sym_typeof, 427), (mozjs_anon_sym_void, 427),
     (mozjs_anon_sym_delete, 427), (mozjs_anon_sym_PLUS_PLUS, 667),
     (mozjs_anon_sym_DASH_DASH, 667), (mozjs_sym_comment, 5),
     (mozjs_anon_sym_BQUOTE, 669), (mozjs_sym_number, 437),
     (mozjs_sym_private_property_identifier, 439), (mozjs_sym_this, 441),
     (mozjs_sym_super, 441), (mozjs_sym_true, 441),
     (mozjs_sym_false, 441), (mozjs_sym_null, 441),
     (mozjs_sym_undefined, 443), (mozjs_anon_sym_AT, 93),
     (mozjs_anon_sym_static, 386), (mozjs_anon_sym_get, 386),
     (mozjs_anon_sym_set, 386), (mozjs_sym_html_comment, 5)]"

definition mozjs_parse_row_174 :: "(TSSymbol \<times> nat) list" where
  "mozjs_parse_row_174 =
    [(mozjs_sym_import, 1340), (mozjs_sym_statement_block, 649),
     (mozjs_sym_parenthesized_expression, 525), (mozjs_sym_expression, 684),
     (mozjs_sym_primary_expression, 584), (mozjs_sym_yield_expression, 638),
     (mozjs_sym_object, 645), (mozjs_sym_object_pattern, 1827),
     (mozjs_sym_array, 645), (mozjs_sym_array_pattern, 1827),
     (mozjs_sym_jsx_element, 638), (mozjs_sym_jsx_opening_element, 1152),
     (mozjs_sym_jsx_self_closing_element, 638), (mozjs_sym_class, 645),
     (mozjs_sym_function_expression, 645), (mozjs_sym_generator_function, 645),
     (mozjs_sym_arrow_function, 645), (mozjs_sym_call_expression, 645),
     (mozjs_sym_new_expression, 587), (mozjs_sym_await_expression, 638),
     (mozjs_sym_member_expression, 525), (mozjs_sym_subscript_expression, 525),
     (mozjs_sym_assignment_expression, 638), (mozjs_sym__augmented_assignment_lhs, 1145),
     (mozjs_sym_augmented_assignment_expression, 638), (mozjs_sym__destructuring_pattern, 1827),
     (mozjs_sym_ternary_expression, 638), (mozjs_sym_binary_expression, 638),
     (mozjs_sym_unary_expression, 638), (mozjs_sym_update_expression, 638),
     (mozjs_sym_string, 645), (mozjs_sym_template_string, 645),
     (mozjs_sym_regex, 645), (mozjs_sym_meta_property, 645),
     (mozjs_sym_decorator, 1112), (mozjs_sym_formal_parameters, 1777),
     (mozjs_aux_sym_export_statement_repeat1, 1395), (mozjs_sym_identifier, 384),
     (mozjs_anon_sym_export, 386), (mozjs_anon_sym_LBRACE, 1010),
     (mozjs_anon_sym_import, 390), (mozjs_anon_sym_let, 386),
     (mozjs_anon_sym_await, 392), (mozjs_anon_sym_LPAREN, 657),
     (mozjs_anon_sym_yield, 397), (mozjs_anon_sym_LBRACK, 661),
     (mozjs_anon_sym_LT, 827), (mozjs_anon_sym_DQUOTE, 407),
     (mozjs_anon_sym_SQUOTE, 409), (mozjs_anon_sym_class, 411),
     (mozjs_anon_sym_async, 413), (mozjs_anon_sym_function, 415),
     (mozjs_anon_sym_new, 419), (mozjs_anon_sym_PLUS, 427),
     (mozjs_anon_sym_DASH, 427), (mozjs_anon_sym_SLASH, 665),
     (mozjs_anon_sym_BANG, 429), (mozjs_anon_sym_TILDE, 429),
     (mozjs_anon_sym_typeof, 427), (mozjs_anon_sym_void, 427),
     (mozjs_anon_sym_delete, 427), (mozjs_anon_sym_PLUS_PLUS, 667),
     (mozjs_anon_sym_DASH_DASH, 667), (mozjs_sym_comment, 5),
     (mozjs_anon_sym_BQUOTE, 669), (mozjs_sym_number, 437),
     (mozjs_sym_private_property_identifier, 439), (mozjs_sym_this, 441),
     (mozjs_sym_super, 441), (mozjs_sym_true, 441),
     (mozjs_sym_false, 441), (mozjs_sym_null, 441),
     (mozjs_sym_undefined, 443), (mozjs_anon_sym_AT, 93),
     (mozjs_anon_sym_static, 386), (mozjs_anon_sym_get, 386),
     (mozjs_anon_sym_set, 386), (mozjs_sym_html_comment, 5)]"

definition mozjs_parse_row_175 :: "(TSSymbol \<times> nat) list" where
  "mozjs_parse_row_175 =
    [(mozjs_sym_import, 1340), (mozjs_sym_parenthesized_expression, 525),
     (mozjs_sym_expression, 840), (mozjs_sym_primary_expression, 584),
     (mozjs_sym_yield_expression, 638), (mozjs_sym_object, 645),
     (mozjs_sym_object_pattern, 1827), (mozjs_sym_array, 645),
     (mozjs_sym_array_pattern, 1827), (mozjs_sym_jsx_element, 638),
     (mozjs_sym_jsx_opening_element, 1152), (mozjs_sym_jsx_self_closing_element, 638),
     (mozjs_sym_class, 645), (mozjs_sym_function_expression, 645),
     (mozjs_sym_generator_function, 645), (mozjs_sym_arrow_function, 645),
     (mozjs_sym_call_expression, 645), (mozjs_sym_new_expression, 587),
     (mozjs_sym_await_expression, 638), (mozjs_sym_member_expression, 525),
     (mozjs_sym_subscript_expression, 525), (mozjs_sym_assignment_expression, 638),
     (mozjs_sym__augmented_assignment_lhs, 1145), (mozjs_sym_augmented_assignment_expression,
       638),
     (mozjs_sym__destructuring_pattern, 1827), (mozjs_sym_ternary_expression, 638),
     (mozjs_sym_binary_expression, 638), (mozjs_sym_unary_expression, 638),
     (mozjs_sym_update_expression, 638), (mozjs_sym_sequence_expression, 1840),
     (mozjs_sym_string, 645), (mozjs_sym_template_string, 645),
     (mozjs_sym_regex, 645), (mozjs_sym_meta_property, 645),
     (mozjs_sym_decorator, 1112), (mozjs_sym_formal_parameters, 1777),
     (mozjs_aux_sym_export_statement_repeat1, 1395), (mozjs_sym_identifier, 384),
     (mozjs_anon_sym_export, 386), (mozjs_anon_sym_LBRACE, 388),
     (mozjs_anon_sym_import, 390), (mozjs_anon_sym_let, 386),
     (mozjs_anon_sym_await, 392), (mozjs_anon_sym_LPAREN, 657),
     (mozjs_anon_sym_yield, 397), (mozjs_anon_sym_LBRACK, 661),
     (mozjs_anon_sym_LT, 827), (mozjs_anon_sym_DQUOTE, 407),
     (mozjs_anon_sym_SQUOTE, 409), (mozjs_anon_sym_class, 411),
     (mozjs_anon_sym_async, 413), (mozjs_anon_sym_function, 415),
     (mozjs_anon_sym_new, 419), (mozjs_anon_sym_PLUS, 427),
     (mozjs_anon_sym_DASH, 427), (mozjs_anon_sym_SLASH, 665),
     (mozjs_anon_sym_BANG, 429), (mozjs_anon_sym_TILDE, 429),
     (mozjs_anon_sym_typeof, 427), (mozjs_anon_sym_void, 427),
     (mozjs_anon_sym_delete, 427), (mozjs_anon_sym_PLUS_PLUS, 667),
     (mozjs_anon_sym_DASH_DASH, 667), (mozjs_sym_comment, 5),
     (mozjs_anon_sym_BQUOTE, 669), (mozjs_sym_number, 437),
     (mozjs_sym_private_property_identifier, 439), (mozjs_sym_this, 441),
     (mozjs_sym_super, 441), (mozjs_sym_true, 441),
     (mozjs_sym_false, 441), (mozjs_sym_null, 441),
     (mozjs_sym_undefined, 443), (mozjs_anon_sym_AT, 93),
     (mozjs_anon_sym_static, 386), (mozjs_anon_sym_get, 386),
     (mozjs_anon_sym_set, 386), (mozjs_sym_html_comment, 5)]"

definition mozjs_parse_row_176 :: "(TSSymbol \<times> nat) list" where
  "mozjs_parse_row_176 =
    [(mozjs_sym_import, 1333), (mozjs_sym_statement_block, 809),
     (mozjs_sym_parenthesized_expression, 559), (mozjs_sym_expression, 814),
     (mozjs_sym_primary_expression, 693), (mozjs_sym_yield_expression, 743),
     (mozjs_sym_object, 793), (mozjs_sym_object_pattern, 1811),
     (mozjs_sym_array, 793), (mozjs_sym_array_pattern, 1811),
     (mozjs_sym_jsx_element, 743), (mozjs_sym_jsx_opening_element, 1158),
     (mozjs_sym_jsx_self_closing_element, 743), (mozjs_sym_class, 793),
     (mozjs_sym_function_expression, 793), (mozjs_sym_generator_function, 793),
     (mozjs_sym_arrow_function, 793), (mozjs_sym_call_expression, 793),
     (mozjs_sym_new_expression, 692), (mozjs_sym_await_expression, 743),
     (mozjs_sym_member_expression, 559), (mozjs_sym_subscript_expression, 559),
     (mozjs_sym_assignment_expression, 743), (mozjs_sym__augmented_assignment_lhs, 1143),
     (mozjs_sym_augmented_assignment_expression, 743), (mozjs_sym__destructuring_pattern, 1811),
     (mozjs_sym_ternary_expression, 743), (mozjs_sym_binary_expression, 743),
     (mozjs_sym_unary_expression, 743), (mozjs_sym_update_expression, 743),
     (mozjs_sym_string, 793), (mozjs_sym_template_string, 793),
     (mozjs_sym_regex, 793), (mozjs_sym_meta_property, 793),
     (mozjs_sym_decorator, 1112), (mozjs_sym_formal_parameters, 1812),
     (mozjs_aux_sym_export_statement_repeat1, 1331), (mozjs_sym_identifier, 551),
     (mozjs_anon_sym_export, 553), (mozjs_anon_sym_LBRACE, 996),
     (mozjs_anon_sym_import, 315), (mozjs_anon_sym_let, 553),
     (mozjs_anon_sym_await, 555), (mozjs_anon_sym_LPAREN, 37),
     (mozjs_anon_sym_yield, 557), (mozjs_anon_sym_LBRACK, 59),
     (mozjs_anon_sym_LT, 61), (mozjs_anon_sym_DQUOTE, 63),
     (mozjs_anon_sym_SQUOTE, 65), (mozjs_anon_sym_class, 336),
     (mozjs_anon_sym_async, 561), (mozjs_anon_sym_function, 340),
     (mozjs_anon_sym_new, 565), (mozjs_anon_sym_PLUS, 573),
     (mozjs_anon_sym_DASH, 573), (mozjs_anon_sym_SLASH, 677),
     (mozjs_anon_sym_BANG, 575), (mozjs_anon_sym_TILDE, 575),
     (mozjs_anon_sym_typeof, 573), (mozjs_anon_sym_void, 573),
     (mozjs_anon_sym_delete, 573), (mozjs_anon_sym_PLUS_PLUS, 679),
     (mozjs_anon_sym_DASH_DASH, 679), (mozjs_sym_comment, 5),
     (mozjs_anon_sym_BQUOTE, 83), (mozjs_sym_number, 85),
     (mozjs_sym_private_property_identifier, 580), (mozjs_sym_this, 89),
     (mozjs_sym_super, 89), (mozjs_sym_true, 89),
     (mozjs_sym_false, 89), (mozjs_sym_null, 89),
     (mozjs_sym_undefined, 582), (mozjs_anon_sym_AT, 93),
     (mozjs_anon_sym_static, 553), (mozjs_anon_sym_get, 553),
     (mozjs_anon_sym_set, 553), (mozjs_sym_html_comment, 5)]"

definition mozjs_parse_row_177 :: "(TSSymbol \<times> nat) list" where
  "mozjs_parse_row_177 =
    [(mozjs_sym_import, 1340), (mozjs_sym_parenthesized_expression, 525),
     (mozjs_sym_expression, 861), (mozjs_sym_primary_expression, 584),
     (mozjs_sym_yield_expression, 638), (mozjs_sym_object, 645),
     (mozjs_sym_object_pattern, 1827), (mozjs_sym_array, 645),
     (mozjs_sym_array_pattern, 1827), (mozjs_sym_jsx_element, 638),
     (mozjs_sym_jsx_opening_element, 1152), (mozjs_sym_jsx_self_closing_element, 638),
     (mozjs_sym_class, 645), (mozjs_sym_function_expression, 645),
     (mozjs_sym_generator_function, 645), (mozjs_sym_arrow_function, 645),
     (mozjs_sym_call_expression, 645), (mozjs_sym_new_expression, 587),
     (mozjs_sym_await_expression, 638), (mozjs_sym_member_expression, 525),
     (mozjs_sym_subscript_expression, 525), (mozjs_sym_assignment_expression, 638),
     (mozjs_sym__augmented_assignment_lhs, 1145), (mozjs_sym_augmented_assignment_expression,
       638),
     (mozjs_sym__destructuring_pattern, 1827), (mozjs_sym_ternary_expression, 638),
     (mozjs_sym_binary_expression, 638), (mozjs_sym_unary_expression, 638),
     (mozjs_sym_update_expression, 638), (mozjs_sym_sequence_expression, 1787),
     (mozjs_sym_string, 645), (mozjs_sym_template_string, 645),
     (mozjs_sym_regex, 645), (mozjs_sym_meta_property, 645),
     (mozjs_sym_decorator, 1112), (mozjs_sym_formal_parameters, 1777),
     (mozjs_aux_sym_export_statement_repeat1, 1395), (mozjs_sym_identifier, 384),
     (mozjs_anon_sym_export, 386), (mozjs_anon_sym_LBRACE, 388),
     (mozjs_anon_sym_import, 390), (mozjs_anon_sym_let, 386),
     (mozjs_anon_sym_await, 392), (mozjs_anon_sym_LPAREN, 657),
     (mozjs_anon_sym_yield, 397), (mozjs_anon_sym_LBRACK, 661),
     (mozjs_anon_sym_LT, 827), (mozjs_anon_sym_DQUOTE, 407),
     (mozjs_anon_sym_SQUOTE, 409), (mozjs_anon_sym_class, 411),
     (mozjs_anon_sym_async, 413), (mozjs_anon_sym_function, 415),
     (mozjs_anon_sym_new, 419), (mozjs_anon_sym_PLUS, 427),
     (mozjs_anon_sym_DASH, 427), (mozjs_anon_sym_SLASH, 665),
     (mozjs_anon_sym_BANG, 429), (mozjs_anon_sym_TILDE, 429),
     (mozjs_anon_sym_typeof, 427), (mozjs_anon_sym_void, 427),
     (mozjs_anon_sym_delete, 427), (mozjs_anon_sym_PLUS_PLUS, 667),
     (mozjs_anon_sym_DASH_DASH, 667), (mozjs_sym_comment, 5),
     (mozjs_anon_sym_BQUOTE, 669), (mozjs_sym_number, 437),
     (mozjs_sym_private_property_identifier, 439), (mozjs_sym_this, 441),
     (mozjs_sym_super, 441), (mozjs_sym_true, 441),
     (mozjs_sym_false, 441), (mozjs_sym_null, 441),
     (mozjs_sym_undefined, 443), (mozjs_anon_sym_AT, 93),
     (mozjs_anon_sym_static, 386), (mozjs_anon_sym_get, 386),
     (mozjs_anon_sym_set, 386), (mozjs_sym_html_comment, 5)]"

definition mozjs_parse_row_178 :: "(TSSymbol \<times> nat) list" where
  "mozjs_parse_row_178 =
    [(mozjs_sym_import, 1340), (mozjs_sym_parenthesized_expression, 525),
     (mozjs_sym_expression, 872), (mozjs_sym_primary_expression, 584),
     (mozjs_sym_yield_expression, 638), (mozjs_sym_object, 645),
     (mozjs_sym_object_pattern, 1827), (mozjs_sym_array, 645),
     (mozjs_sym_array_pattern, 1827), (mozjs_sym_jsx_element, 638),
     (mozjs_sym_jsx_opening_element, 1152), (mozjs_sym_jsx_self_closing_element, 638),
     (mozjs_sym_class, 645), (mozjs_sym_function_expression, 645),
     (mozjs_sym_generator_function, 645), (mozjs_sym_arrow_function, 645),
     (mozjs_sym_call_expression, 645), (mozjs_sym_new_expression, 587),
     (mozjs_sym_await_expression, 638), (mozjs_sym_member_expression, 525),
     (mozjs_sym_subscript_expression, 525), (mozjs_sym_assignment_expression, 638),
     (mozjs_sym__augmented_assignment_lhs, 1145), (mozjs_sym_augmented_assignment_expression,
       638),
     (mozjs_sym__destructuring_pattern, 1827), (mozjs_sym_ternary_expression, 638),
     (mozjs_sym_binary_expression, 638), (mozjs_sym_unary_expression, 638),
     (mozjs_sym_update_expression, 638), (mozjs_sym_sequence_expression, 1820),
     (mozjs_sym_string, 645), (mozjs_sym_template_string, 645),
     (mozjs_sym_regex, 645), (mozjs_sym_meta_property, 645),
     (mozjs_sym_decorator, 1112), (mozjs_sym_formal_parameters, 1777),
     (mozjs_aux_sym_export_statement_repeat1, 1395), (mozjs_sym_identifier, 384),
     (mozjs_anon_sym_export, 386), (mozjs_anon_sym_LBRACE, 388),
     (mozjs_anon_sym_import, 390), (mozjs_anon_sym_let, 386),
     (mozjs_anon_sym_await, 392), (mozjs_anon_sym_LPAREN, 657),
     (mozjs_anon_sym_yield, 397), (mozjs_anon_sym_LBRACK, 661),
     (mozjs_anon_sym_LT, 827), (mozjs_anon_sym_DQUOTE, 407),
     (mozjs_anon_sym_SQUOTE, 409), (mozjs_anon_sym_class, 411),
     (mozjs_anon_sym_async, 413), (mozjs_anon_sym_function, 415),
     (mozjs_anon_sym_new, 419), (mozjs_anon_sym_PLUS, 427),
     (mozjs_anon_sym_DASH, 427), (mozjs_anon_sym_SLASH, 665),
     (mozjs_anon_sym_BANG, 429), (mozjs_anon_sym_TILDE, 429),
     (mozjs_anon_sym_typeof, 427), (mozjs_anon_sym_void, 427),
     (mozjs_anon_sym_delete, 427), (mozjs_anon_sym_PLUS_PLUS, 667),
     (mozjs_anon_sym_DASH_DASH, 667), (mozjs_sym_comment, 5),
     (mozjs_anon_sym_BQUOTE, 669), (mozjs_sym_number, 437),
     (mozjs_sym_private_property_identifier, 439), (mozjs_sym_this, 441),
     (mozjs_sym_super, 441), (mozjs_sym_true, 441),
     (mozjs_sym_false, 441), (mozjs_sym_null, 441),
     (mozjs_sym_undefined, 443), (mozjs_anon_sym_AT, 93),
     (mozjs_anon_sym_static, 386), (mozjs_anon_sym_get, 386),
     (mozjs_anon_sym_set, 386), (mozjs_sym_html_comment, 5)]"

definition mozjs_parse_row_179 :: "(TSSymbol \<times> nat) list" where
  "mozjs_parse_row_179 =
    [(mozjs_sym_import, 1340), (mozjs_sym_statement_block, 598),
     (mozjs_sym_parenthesized_expression, 525), (mozjs_sym_expression, 667),
     (mozjs_sym_primary_expression, 584), (mozjs_sym_yield_expression, 638),
     (mozjs_sym_object, 645), (mozjs_sym_object_pattern, 1827),
     (mozjs_sym_array, 645), (mozjs_sym_array_pattern, 1827),
     (mozjs_sym_jsx_element, 638), (mozjs_sym_jsx_opening_element, 1152),
     (mozjs_sym_jsx_self_closing_element, 638), (mozjs_sym_class, 645),
     (mozjs_sym_function_expression, 645), (mozjs_sym_generator_function, 645),
     (mozjs_sym_arrow_function, 645), (mozjs_sym_call_expression, 645),
     (mozjs_sym_new_expression, 587), (mozjs_sym_await_expression, 638),
     (mozjs_sym_member_expression, 525), (mozjs_sym_subscript_expression, 525),
     (mozjs_sym_assignment_expression, 638), (mozjs_sym__augmented_assignment_lhs, 1145),
     (mozjs_sym_augmented_assignment_expression, 638), (mozjs_sym__destructuring_pattern, 1827),
     (mozjs_sym_ternary_expression, 638), (mozjs_sym_binary_expression, 638),
     (mozjs_sym_unary_expression, 638), (mozjs_sym_update_expression, 638),
     (mozjs_sym_string, 645), (mozjs_sym_template_string, 645),
     (mozjs_sym_regex, 645), (mozjs_sym_meta_property, 645),
     (mozjs_sym_decorator, 1112), (mozjs_sym_formal_parameters, 1777),
     (mozjs_aux_sym_export_statement_repeat1, 1395), (mozjs_sym_identifier, 384),
     (mozjs_anon_sym_export, 386), (mozjs_anon_sym_LBRACE, 1010),
     (mozjs_anon_sym_import, 390), (mozjs_anon_sym_let, 386),
     (mozjs_anon_sym_await, 392), (mozjs_anon_sym_LPAREN, 657),
     (mozjs_anon_sym_yield, 397), (mozjs_anon_sym_LBRACK, 661),
     (mozjs_anon_sym_LT, 827), (mozjs_anon_sym_DQUOTE, 407),
     (mozjs_anon_sym_SQUOTE, 409), (mozjs_anon_sym_class, 411),
     (mozjs_anon_sym_async, 413), (mozjs_anon_sym_function, 415),
     (mozjs_anon_sym_new, 419), (mozjs_anon_sym_PLUS, 427),
     (mozjs_anon_sym_DASH, 427), (mozjs_anon_sym_SLASH, 665),
     (mozjs_anon_sym_BANG, 429), (mozjs_anon_sym_TILDE, 429),
     (mozjs_anon_sym_typeof, 427), (mozjs_anon_sym_void, 427),
     (mozjs_anon_sym_delete, 427), (mozjs_anon_sym_PLUS_PLUS, 667),
     (mozjs_anon_sym_DASH_DASH, 667), (mozjs_sym_comment, 5),
     (mozjs_anon_sym_BQUOTE, 669), (mozjs_sym_number, 437),
     (mozjs_sym_private_property_identifier, 439), (mozjs_sym_this, 441),
     (mozjs_sym_super, 441), (mozjs_sym_true, 441),
     (mozjs_sym_false, 441), (mozjs_sym_null, 441),
     (mozjs_sym_undefined, 443), (mozjs_anon_sym_AT, 93),
     (mozjs_anon_sym_static, 386), (mozjs_anon_sym_get, 386),
     (mozjs_anon_sym_set, 386), (mozjs_sym_html_comment, 5)]"

definition mozjs_parse_row_180 :: "(TSSymbol \<times> nat) list" where
  "mozjs_parse_row_180 =
    [(mozjs_sym_import, 1333), (mozjs_sym_statement_block, 725),
     (mozjs_sym_parenthesized_expression, 559), (mozjs_sym_expression, 708),
     (mozjs_sym_primary_expression, 693), (mozjs_sym_yield_expression, 743),
     (mozjs_sym_object, 793), (mozjs_sym_object_pattern, 1811),
     (mozjs_sym_array, 793), (mozjs_sym_array_pattern, 1811),
     (mozjs_sym_jsx_element, 743), (mozjs_sym_jsx_opening_element, 1158),
     (mozjs_sym_jsx_self_closing_element, 743), (mozjs_sym_class, 793),
     (mozjs_sym_function_expression, 793), (mozjs_sym_generator_function, 793),
     (mozjs_sym_arrow_function, 793), (mozjs_sym_call_expression, 793),
     (mozjs_sym_new_expression, 692), (mozjs_sym_await_expression, 743),
     (mozjs_sym_member_expression, 559), (mozjs_sym_subscript_expression, 559),
     (mozjs_sym_assignment_expression, 743), (mozjs_sym__augmented_assignment_lhs, 1143),
     (mozjs_sym_augmented_assignment_expression, 743), (mozjs_sym__destructuring_pattern, 1811),
     (mozjs_sym_ternary_expression, 743), (mozjs_sym_binary_expression, 743),
     (mozjs_sym_unary_expression, 743), (mozjs_sym_update_expression, 743),
     (mozjs_sym_string, 793), (mozjs_sym_template_string, 793),
     (mozjs_sym_regex, 793), (mozjs_sym_meta_property, 793),
     (mozjs_sym_decorator, 1112), (mozjs_sym_formal_parameters, 1812),
     (mozjs_aux_sym_export_statement_repeat1, 1331), (mozjs_sym_identifier, 551),
     (mozjs_anon_sym_export, 553), (mozjs_anon_sym_LBRACE, 996),
     (mozjs_anon_sym_import, 315), (mozjs_anon_sym_let, 553),
     (mozjs_anon_sym_await, 555), (mozjs_anon_sym_LPAREN, 37),
     (mozjs_anon_sym_yield, 557), (mozjs_anon_sym_LBRACK, 59),
     (mozjs_anon_sym_LT, 61), (mozjs_anon_sym_DQUOTE, 63),
     (mozjs_anon_sym_SQUOTE, 65), (mozjs_anon_sym_class, 336),
     (mozjs_anon_sym_async, 561), (mozjs_anon_sym_function, 340),
     (mozjs_anon_sym_new, 565), (mozjs_anon_sym_PLUS, 573),
     (mozjs_anon_sym_DASH, 573), (mozjs_anon_sym_SLASH, 677),
     (mozjs_anon_sym_BANG, 575), (mozjs_anon_sym_TILDE, 575),
     (mozjs_anon_sym_typeof, 573), (mozjs_anon_sym_void, 573),
     (mozjs_anon_sym_delete, 573), (mozjs_anon_sym_PLUS_PLUS, 679),
     (mozjs_anon_sym_DASH_DASH, 679), (mozjs_sym_comment, 5),
     (mozjs_anon_sym_BQUOTE, 83), (mozjs_sym_number, 85),
     (mozjs_sym_private_property_identifier, 580), (mozjs_sym_this, 89),
     (mozjs_sym_super, 89), (mozjs_sym_true, 89),
     (mozjs_sym_false, 89), (mozjs_sym_null, 89),
     (mozjs_sym_undefined, 582), (mozjs_anon_sym_AT, 93),
     (mozjs_anon_sym_static, 553), (mozjs_anon_sym_get, 553),
     (mozjs_anon_sym_set, 553), (mozjs_sym_html_comment, 5)]"

definition mozjs_parse_row_181 :: "(TSSymbol \<times> nat) list" where
  "mozjs_parse_row_181 =
    [(mozjs_sym_import, 1340), (mozjs_sym_parenthesized_expression, 525),
     (mozjs_sym_expression, 864), (mozjs_sym_primary_expression, 584),
     (mozjs_sym_yield_expression, 638), (mozjs_sym_object, 645),
     (mozjs_sym_object_pattern, 1827), (mozjs_sym_array, 645),
     (mozjs_sym_array_pattern, 1827), (mozjs_sym_jsx_element, 638),
     (mozjs_sym_jsx_opening_element, 1152), (mozjs_sym_jsx_self_closing_element, 638),
     (mozjs_sym_class, 645), (mozjs_sym_function_expression, 645),
     (mozjs_sym_generator_function, 645), (mozjs_sym_arrow_function, 645),
     (mozjs_sym_call_expression, 645), (mozjs_sym_new_expression, 587),
     (mozjs_sym_await_expression, 638), (mozjs_sym_member_expression, 525),
     (mozjs_sym_subscript_expression, 525), (mozjs_sym_assignment_expression, 638),
     (mozjs_sym__augmented_assignment_lhs, 1145), (mozjs_sym_augmented_assignment_expression,
       638),
     (mozjs_sym__destructuring_pattern, 1827), (mozjs_sym_ternary_expression, 638),
     (mozjs_sym_binary_expression, 638), (mozjs_sym_unary_expression, 638),
     (mozjs_sym_update_expression, 638), (mozjs_sym_sequence_expression, 1762),
     (mozjs_sym_string, 645), (mozjs_sym_template_string, 645),
     (mozjs_sym_regex, 645), (mozjs_sym_meta_property, 645),
     (mozjs_sym_decorator, 1112), (mozjs_sym_formal_parameters, 1777),
     (mozjs_aux_sym_export_statement_repeat1, 1395), (mozjs_sym_identifier, 384),
     (mozjs_anon_sym_export, 386), (mozjs_anon_sym_LBRACE, 388),
     (mozjs_anon_sym_import, 390), (mozjs_anon_sym_let, 386),
     (mozjs_anon_sym_await, 392), (mozjs_anon_sym_LPAREN, 657),
     (mozjs_anon_sym_yield, 397), (mozjs_anon_sym_LBRACK, 661),
     (mozjs_anon_sym_LT, 827), (mozjs_anon_sym_DQUOTE, 407),
     (mozjs_anon_sym_SQUOTE, 409), (mozjs_anon_sym_class, 411),
     (mozjs_anon_sym_async, 413), (mozjs_anon_sym_function, 415),
     (mozjs_anon_sym_new, 419), (mozjs_anon_sym_PLUS, 427),
     (mozjs_anon_sym_DASH, 427), (mozjs_anon_sym_SLASH, 665),
     (mozjs_anon_sym_BANG, 429), (mozjs_anon_sym_TILDE, 429),
     (mozjs_anon_sym_typeof, 427), (mozjs_anon_sym_void, 427),
     (mozjs_anon_sym_delete, 427), (mozjs_anon_sym_PLUS_PLUS, 667),
     (mozjs_anon_sym_DASH_DASH, 667), (mozjs_sym_comment, 5),
     (mozjs_anon_sym_BQUOTE, 669), (mozjs_sym_number, 437),
     (mozjs_sym_private_property_identifier, 439), (mozjs_sym_this, 441),
     (mozjs_sym_super, 441), (mozjs_sym_true, 441),
     (mozjs_sym_false, 441), (mozjs_sym_null, 441),
     (mozjs_sym_undefined, 443), (mozjs_anon_sym_AT, 93),
     (mozjs_anon_sym_static, 386), (mozjs_anon_sym_get, 386),
     (mozjs_anon_sym_set, 386), (mozjs_sym_html_comment, 5)]"

definition mozjs_parse_row_182 :: "(TSSymbol \<times> nat) list" where
  "mozjs_parse_row_182 =
    [(mozjs_sym_import, 1333), (mozjs_sym_statement_block, 806),
     (mozjs_sym_parenthesized_expression, 559), (mozjs_sym_expression, 723),
     (mozjs_sym_primary_expression, 693), (mozjs_sym_yield_expression, 743),
     (mozjs_sym_object, 793), (mozjs_sym_object_pattern, 1811),
     (mozjs_sym_array, 793), (mozjs_sym_array_pattern, 1811),
     (mozjs_sym_jsx_element, 743), (mozjs_sym_jsx_opening_element, 1158),
     (mozjs_sym_jsx_self_closing_element, 743), (mozjs_sym_class, 793),
     (mozjs_sym_function_expression, 793), (mozjs_sym_generator_function, 793),
     (mozjs_sym_arrow_function, 793), (mozjs_sym_call_expression, 793),
     (mozjs_sym_new_expression, 692), (mozjs_sym_await_expression, 743),
     (mozjs_sym_member_expression, 559), (mozjs_sym_subscript_expression, 559),
     (mozjs_sym_assignment_expression, 743), (mozjs_sym__augmented_assignment_lhs, 1143),
     (mozjs_sym_augmented_assignment_expression, 743), (mozjs_sym__destructuring_pattern, 1811),
     (mozjs_sym_ternary_expression, 743), (mozjs_sym_binary_expression, 743),
     (mozjs_sym_unary_expression, 743), (mozjs_sym_update_expression, 743),
     (mozjs_sym_string, 793), (mozjs_sym_template_string, 793),
     (mozjs_sym_regex, 793), (mozjs_sym_meta_property, 793),
     (mozjs_sym_decorator, 1112), (mozjs_sym_formal_parameters, 1812),
     (mozjs_aux_sym_export_statement_repeat1, 1331), (mozjs_sym_identifier, 551),
     (mozjs_anon_sym_export, 553), (mozjs_anon_sym_LBRACE, 996),
     (mozjs_anon_sym_import, 315), (mozjs_anon_sym_let, 553),
     (mozjs_anon_sym_await, 555), (mozjs_anon_sym_LPAREN, 37),
     (mozjs_anon_sym_yield, 557), (mozjs_anon_sym_LBRACK, 59),
     (mozjs_anon_sym_LT, 61), (mozjs_anon_sym_DQUOTE, 63),
     (mozjs_anon_sym_SQUOTE, 65), (mozjs_anon_sym_class, 336),
     (mozjs_anon_sym_async, 561), (mozjs_anon_sym_function, 340),
     (mozjs_anon_sym_new, 565), (mozjs_anon_sym_PLUS, 573),
     (mozjs_anon_sym_DASH, 573), (mozjs_anon_sym_SLASH, 677),
     (mozjs_anon_sym_BANG, 575), (mozjs_anon_sym_TILDE, 575),
     (mozjs_anon_sym_typeof, 573), (mozjs_anon_sym_void, 573),
     (mozjs_anon_sym_delete, 573), (mozjs_anon_sym_PLUS_PLUS, 679),
     (mozjs_anon_sym_DASH_DASH, 679), (mozjs_sym_comment, 5),
     (mozjs_anon_sym_BQUOTE, 83), (mozjs_sym_number, 85),
     (mozjs_sym_private_property_identifier, 580), (mozjs_sym_this, 89),
     (mozjs_sym_super, 89), (mozjs_sym_true, 89),
     (mozjs_sym_false, 89), (mozjs_sym_null, 89),
     (mozjs_sym_undefined, 582), (mozjs_anon_sym_AT, 93),
     (mozjs_anon_sym_static, 553), (mozjs_anon_sym_get, 553),
     (mozjs_anon_sym_set, 553), (mozjs_sym_html_comment, 5)]"

definition mozjs_parse_row_183 :: "(TSSymbol \<times> nat) list" where
  "mozjs_parse_row_183 =
    [(mozjs_sym_import, 1340), (mozjs_sym_parenthesized_expression, 525),
     (mozjs_sym_expression, 837), (mozjs_sym_primary_expression, 584),
     (mozjs_sym_yield_expression, 638), (mozjs_sym_object, 645),
     (mozjs_sym_object_pattern, 1827), (mozjs_sym_array, 645),
     (mozjs_sym_array_pattern, 1827), (mozjs_sym_jsx_element, 638),
     (mozjs_sym_jsx_opening_element, 1152), (mozjs_sym_jsx_self_closing_element, 638),
     (mozjs_sym_class, 645), (mozjs_sym_function_expression, 645),
     (mozjs_sym_generator_function, 645), (mozjs_sym_arrow_function, 645),
     (mozjs_sym_call_expression, 645), (mozjs_sym_new_expression, 587),
     (mozjs_sym_await_expression, 638), (mozjs_sym_member_expression, 525),
     (mozjs_sym_subscript_expression, 525), (mozjs_sym_assignment_expression, 638),
     (mozjs_sym__augmented_assignment_lhs, 1145), (mozjs_sym_augmented_assignment_expression,
       638),
     (mozjs_sym__destructuring_pattern, 1827), (mozjs_sym_ternary_expression, 638),
     (mozjs_sym_binary_expression, 638), (mozjs_sym_unary_expression, 638),
     (mozjs_sym_update_expression, 638), (mozjs_sym_sequence_expression, 1846),
     (mozjs_sym_string, 645), (mozjs_sym_template_string, 645),
     (mozjs_sym_regex, 645), (mozjs_sym_meta_property, 645),
     (mozjs_sym_decorator, 1112), (mozjs_sym_formal_parameters, 1777),
     (mozjs_aux_sym_export_statement_repeat1, 1395), (mozjs_sym_identifier, 384),
     (mozjs_anon_sym_export, 386), (mozjs_anon_sym_LBRACE, 388),
     (mozjs_anon_sym_import, 390), (mozjs_anon_sym_let, 386),
     (mozjs_anon_sym_await, 392), (mozjs_anon_sym_LPAREN, 657),
     (mozjs_anon_sym_yield, 397), (mozjs_anon_sym_LBRACK, 661),
     (mozjs_anon_sym_LT, 827), (mozjs_anon_sym_DQUOTE, 407),
     (mozjs_anon_sym_SQUOTE, 409), (mozjs_anon_sym_class, 411),
     (mozjs_anon_sym_async, 413), (mozjs_anon_sym_function, 415),
     (mozjs_anon_sym_new, 419), (mozjs_anon_sym_PLUS, 427),
     (mozjs_anon_sym_DASH, 427), (mozjs_anon_sym_SLASH, 665),
     (mozjs_anon_sym_BANG, 429), (mozjs_anon_sym_TILDE, 429),
     (mozjs_anon_sym_typeof, 427), (mozjs_anon_sym_void, 427),
     (mozjs_anon_sym_delete, 427), (mozjs_anon_sym_PLUS_PLUS, 667),
     (mozjs_anon_sym_DASH_DASH, 667), (mozjs_sym_comment, 5),
     (mozjs_anon_sym_BQUOTE, 669), (mozjs_sym_number, 437),
     (mozjs_sym_private_property_identifier, 439), (mozjs_sym_this, 441),
     (mozjs_sym_super, 441), (mozjs_sym_true, 441),
     (mozjs_sym_false, 441), (mozjs_sym_null, 441),
     (mozjs_sym_undefined, 443), (mozjs_anon_sym_AT, 93),
     (mozjs_anon_sym_static, 386), (mozjs_anon_sym_get, 386),
     (mozjs_anon_sym_set, 386), (mozjs_sym_html_comment, 5)]"

definition mozjs_parse_row_184 :: "(TSSymbol \<times> nat) list" where
  "mozjs_parse_row_184 =
    [(mozjs_sym_import, 1340), (mozjs_sym_parenthesized_expression, 525),
     (mozjs_sym_expression, 884), (mozjs_sym_primary_expression, 584),
     (mozjs_sym_yield_expression, 638), (mozjs_sym_object, 645),
     (mozjs_sym_object_pattern, 1827), (mozjs_sym_array, 645),
     (mozjs_sym_array_pattern, 1827), (mozjs_sym_jsx_element, 638),
     (mozjs_sym_jsx_opening_element, 1152), (mozjs_sym_jsx_self_closing_element, 638),
     (mozjs_sym_class, 645), (mozjs_sym_function_expression, 645),
     (mozjs_sym_generator_function, 645), (mozjs_sym_arrow_function, 645),
     (mozjs_sym_call_expression, 645), (mozjs_sym_new_expression, 587),
     (mozjs_sym_await_expression, 638), (mozjs_sym_member_expression, 525),
     (mozjs_sym_subscript_expression, 525), (mozjs_sym_assignment_expression, 638),
     (mozjs_sym__augmented_assignment_lhs, 1145), (mozjs_sym_augmented_assignment_expression,
       638),
     (mozjs_sym__destructuring_pattern, 1827), (mozjs_sym_ternary_expression, 638),
     (mozjs_sym_binary_expression, 638), (mozjs_sym_unary_expression, 638),
     (mozjs_sym_update_expression, 638), (mozjs_sym_sequence_expression, 1784),
     (mozjs_sym_string, 645), (mozjs_sym_template_string, 645),
     (mozjs_sym_regex, 645), (mozjs_sym_meta_property, 645),
     (mozjs_sym_decorator, 1112), (mozjs_sym_formal_parameters, 1777),
     (mozjs_aux_sym_export_statement_repeat1, 1395), (mozjs_sym_identifier, 384),
     (mozjs_anon_sym_export, 386), (mozjs_anon_sym_LBRACE, 388),
     (mozjs_anon_sym_import, 390), (mozjs_anon_sym_let, 386),
     (mozjs_anon_sym_await, 392), (mozjs_anon_sym_LPAREN, 657),
     (mozjs_anon_sym_yield, 397), (mozjs_anon_sym_LBRACK, 661),
     (mozjs_anon_sym_LT, 827), (mozjs_anon_sym_DQUOTE, 407),
     (mozjs_anon_sym_SQUOTE, 409), (mozjs_anon_sym_class, 411),
     (mozjs_anon_sym_async, 413), (mozjs_anon_sym_function, 415),
     (mozjs_anon_sym_new, 419), (mozjs_anon_sym_PLUS, 427),
     (mozjs_anon_sym_DASH, 427), (mozjs_anon_sym_SLASH, 665),
     (mozjs_anon_sym_BANG, 429), (mozjs_anon_sym_TILDE, 429),
     (mozjs_anon_sym_typeof, 427), (mozjs_anon_sym_void, 427),
     (mozjs_anon_sym_delete, 427), (mozjs_anon_sym_PLUS_PLUS, 667),
     (mozjs_anon_sym_DASH_DASH, 667), (mozjs_sym_comment, 5),
     (mozjs_anon_sym_BQUOTE, 669), (mozjs_sym_number, 437),
     (mozjs_sym_private_property_identifier, 439), (mozjs_sym_this, 441),
     (mozjs_sym_super, 441), (mozjs_sym_true, 441),
     (mozjs_sym_false, 441), (mozjs_sym_null, 441),
     (mozjs_sym_undefined, 443), (mozjs_anon_sym_AT, 93),
     (mozjs_anon_sym_static, 386), (mozjs_anon_sym_get, 386),
     (mozjs_anon_sym_set, 386), (mozjs_sym_html_comment, 5)]"

definition mozjs_parse_row_185 :: "(TSSymbol \<times> nat) list" where
  "mozjs_parse_row_185 =
    [(mozjs_sym_import, 1333), (mozjs_sym_statement_block, 738),
     (mozjs_sym_parenthesized_expression, 559), (mozjs_sym_expression, 727),
     (mozjs_sym_primary_expression, 693), (mozjs_sym_yield_expression, 743),
     (mozjs_sym_object, 793), (mozjs_sym_object_pattern, 1811),
     (mozjs_sym_array, 793), (mozjs_sym_array_pattern, 1811),
     (mozjs_sym_jsx_element, 743), (mozjs_sym_jsx_opening_element, 1158),
     (mozjs_sym_jsx_self_closing_element, 743), (mozjs_sym_class, 793),
     (mozjs_sym_function_expression, 793), (mozjs_sym_generator_function, 793),
     (mozjs_sym_arrow_function, 793), (mozjs_sym_call_expression, 793),
     (mozjs_sym_new_expression, 692), (mozjs_sym_await_expression, 743),
     (mozjs_sym_member_expression, 559), (mozjs_sym_subscript_expression, 559),
     (mozjs_sym_assignment_expression, 743), (mozjs_sym__augmented_assignment_lhs, 1143),
     (mozjs_sym_augmented_assignment_expression, 743), (mozjs_sym__destructuring_pattern, 1811),
     (mozjs_sym_ternary_expression, 743), (mozjs_sym_binary_expression, 743),
     (mozjs_sym_unary_expression, 743), (mozjs_sym_update_expression, 743),
     (mozjs_sym_string, 793), (mozjs_sym_template_string, 793),
     (mozjs_sym_regex, 793), (mozjs_sym_meta_property, 793),
     (mozjs_sym_decorator, 1112), (mozjs_sym_formal_parameters, 1812),
     (mozjs_aux_sym_export_statement_repeat1, 1331), (mozjs_sym_identifier, 551),
     (mozjs_anon_sym_export, 553), (mozjs_anon_sym_LBRACE, 996),
     (mozjs_anon_sym_import, 315), (mozjs_anon_sym_let, 553),
     (mozjs_anon_sym_await, 555), (mozjs_anon_sym_LPAREN, 37),
     (mozjs_anon_sym_yield, 557), (mozjs_anon_sym_LBRACK, 59),
     (mozjs_anon_sym_LT, 61), (mozjs_anon_sym_DQUOTE, 63),
     (mozjs_anon_sym_SQUOTE, 65), (mozjs_anon_sym_class, 336),
     (mozjs_anon_sym_async, 561), (mozjs_anon_sym_function, 340),
     (mozjs_anon_sym_new, 565), (mozjs_anon_sym_PLUS, 573),
     (mozjs_anon_sym_DASH, 573), (mozjs_anon_sym_SLASH, 677),
     (mozjs_anon_sym_BANG, 575), (mozjs_anon_sym_TILDE, 575),
     (mozjs_anon_sym_typeof, 573), (mozjs_anon_sym_void, 573),
     (mozjs_anon_sym_delete, 573), (mozjs_anon_sym_PLUS_PLUS, 679),
     (mozjs_anon_sym_DASH_DASH, 679), (mozjs_sym_comment, 5),
     (mozjs_anon_sym_BQUOTE, 83), (mozjs_sym_number, 85),
     (mozjs_sym_private_property_identifier, 580), (mozjs_sym_this, 89),
     (mozjs_sym_super, 89), (mozjs_sym_true, 89),
     (mozjs_sym_false, 89), (mozjs_sym_null, 89),
     (mozjs_sym_undefined, 582), (mozjs_anon_sym_AT, 93),
     (mozjs_anon_sym_static, 553), (mozjs_anon_sym_get, 553),
     (mozjs_anon_sym_set, 553), (mozjs_sym_html_comment, 5)]"

definition mozjs_parse_row_186 :: "(TSSymbol \<times> nat) list" where
  "mozjs_parse_row_186 =
    [(mozjs_sym_import, 1333), (mozjs_sym_statement_block, 791),
     (mozjs_sym_parenthesized_expression, 559), (mozjs_sym_expression, 728),
     (mozjs_sym_primary_expression, 693), (mozjs_sym_yield_expression, 743),
     (mozjs_sym_object, 793), (mozjs_sym_object_pattern, 1811),
     (mozjs_sym_array, 793), (mozjs_sym_array_pattern, 1811),
     (mozjs_sym_jsx_element, 743), (mozjs_sym_jsx_opening_element, 1158),
     (mozjs_sym_jsx_self_closing_element, 743), (mozjs_sym_class, 793),
     (mozjs_sym_function_expression, 793), (mozjs_sym_generator_function, 793),
     (mozjs_sym_arrow_function, 793), (mozjs_sym_call_expression, 793),
     (mozjs_sym_new_expression, 692), (mozjs_sym_await_expression, 743),
     (mozjs_sym_member_expression, 559), (mozjs_sym_subscript_expression, 559),
     (mozjs_sym_assignment_expression, 743), (mozjs_sym__augmented_assignment_lhs, 1143),
     (mozjs_sym_augmented_assignment_expression, 743), (mozjs_sym__destructuring_pattern, 1811),
     (mozjs_sym_ternary_expression, 743), (mozjs_sym_binary_expression, 743),
     (mozjs_sym_unary_expression, 743), (mozjs_sym_update_expression, 743),
     (mozjs_sym_string, 793), (mozjs_sym_template_string, 793),
     (mozjs_sym_regex, 793), (mozjs_sym_meta_property, 793),
     (mozjs_sym_decorator, 1112), (mozjs_sym_formal_parameters, 1812),
     (mozjs_aux_sym_export_statement_repeat1, 1331), (mozjs_sym_identifier, 551),
     (mozjs_anon_sym_export, 553), (mozjs_anon_sym_LBRACE, 996),
     (mozjs_anon_sym_import, 315), (mozjs_anon_sym_let, 553),
     (mozjs_anon_sym_await, 555), (mozjs_anon_sym_LPAREN, 37),
     (mozjs_anon_sym_yield, 557), (mozjs_anon_sym_LBRACK, 59),
     (mozjs_anon_sym_LT, 61), (mozjs_anon_sym_DQUOTE, 63),
     (mozjs_anon_sym_SQUOTE, 65), (mozjs_anon_sym_class, 336),
     (mozjs_anon_sym_async, 561), (mozjs_anon_sym_function, 340),
     (mozjs_anon_sym_new, 565), (mozjs_anon_sym_PLUS, 573),
     (mozjs_anon_sym_DASH, 573), (mozjs_anon_sym_SLASH, 677),
     (mozjs_anon_sym_BANG, 575), (mozjs_anon_sym_TILDE, 575),
     (mozjs_anon_sym_typeof, 573), (mozjs_anon_sym_void, 573),
     (mozjs_anon_sym_delete, 573), (mozjs_anon_sym_PLUS_PLUS, 679),
     (mozjs_anon_sym_DASH_DASH, 679), (mozjs_sym_comment, 5),
     (mozjs_anon_sym_BQUOTE, 83), (mozjs_sym_number, 85),
     (mozjs_sym_private_property_identifier, 580), (mozjs_sym_this, 89),
     (mozjs_sym_super, 89), (mozjs_sym_true, 89),
     (mozjs_sym_false, 89), (mozjs_sym_null, 89),
     (mozjs_sym_undefined, 582), (mozjs_anon_sym_AT, 93),
     (mozjs_anon_sym_static, 553), (mozjs_anon_sym_get, 553),
     (mozjs_anon_sym_set, 553), (mozjs_sym_html_comment, 5)]"

definition mozjs_parse_row_187 :: "(TSSymbol \<times> nat) list" where
  "mozjs_parse_row_187 =
    [(mozjs_sym_import, 1340), (mozjs_sym_parenthesized_expression, 525),
     (mozjs_sym_expression, 866), (mozjs_sym_primary_expression, 584),
     (mozjs_sym_yield_expression, 638), (mozjs_sym_object, 645),
     (mozjs_sym_object_pattern, 1827), (mozjs_sym_array, 645),
     (mozjs_sym_array_pattern, 1827), (mozjs_sym_jsx_element, 638),
     (mozjs_sym_jsx_opening_element, 1152), (mozjs_sym_jsx_self_closing_element, 638),
     (mozjs_sym_class, 645), (mozjs_sym_function_expression, 645),
     (mozjs_sym_generator_function, 645), (mozjs_sym_arrow_function, 645),
     (mozjs_sym_call_expression, 645), (mozjs_sym_new_expression, 587),
     (mozjs_sym_await_expression, 638), (mozjs_sym_member_expression, 525),
     (mozjs_sym_subscript_expression, 525), (mozjs_sym_assignment_expression, 638),
     (mozjs_sym__augmented_assignment_lhs, 1145), (mozjs_sym_augmented_assignment_expression,
       638),
     (mozjs_sym__destructuring_pattern, 1827), (mozjs_sym_ternary_expression, 638),
     (mozjs_sym_binary_expression, 638), (mozjs_sym_unary_expression, 638),
     (mozjs_sym_update_expression, 638), (mozjs_sym_sequence_expression, 1795),
     (mozjs_sym_string, 645), (mozjs_sym_template_string, 645),
     (mozjs_sym_regex, 645), (mozjs_sym_meta_property, 645),
     (mozjs_sym_decorator, 1112), (mozjs_sym_formal_parameters, 1777),
     (mozjs_aux_sym_export_statement_repeat1, 1395), (mozjs_sym_identifier, 384),
     (mozjs_anon_sym_export, 386), (mozjs_anon_sym_LBRACE, 388),
     (mozjs_anon_sym_import, 390), (mozjs_anon_sym_let, 386),
     (mozjs_anon_sym_await, 392), (mozjs_anon_sym_LPAREN, 657),
     (mozjs_anon_sym_yield, 397), (mozjs_anon_sym_LBRACK, 661),
     (mozjs_anon_sym_LT, 827), (mozjs_anon_sym_DQUOTE, 407),
     (mozjs_anon_sym_SQUOTE, 409), (mozjs_anon_sym_class, 411),
     (mozjs_anon_sym_async, 413), (mozjs_anon_sym_function, 415),
     (mozjs_anon_sym_new, 419), (mozjs_anon_sym_PLUS, 427),
     (mozjs_anon_sym_DASH, 427), (mozjs_anon_sym_SLASH, 665),
     (mozjs_anon_sym_BANG, 429), (mozjs_anon_sym_TILDE, 429),
     (mozjs_anon_sym_typeof, 427), (mozjs_anon_sym_void, 427),
     (mozjs_anon_sym_delete, 427), (mozjs_anon_sym_PLUS_PLUS, 667),
     (mozjs_anon_sym_DASH_DASH, 667), (mozjs_sym_comment, 5),
     (mozjs_anon_sym_BQUOTE, 669), (mozjs_sym_number, 437),
     (mozjs_sym_private_property_identifier, 439), (mozjs_sym_this, 441),
     (mozjs_sym_super, 441), (mozjs_sym_true, 441),
     (mozjs_sym_false, 441), (mozjs_sym_null, 441),
     (mozjs_sym_undefined, 443), (mozjs_anon_sym_AT, 93),
     (mozjs_anon_sym_static, 386), (mozjs_anon_sym_get, 386),
     (mozjs_anon_sym_set, 386), (mozjs_sym_html_comment, 5)]"

definition mozjs_parse_row_188 :: "(TSSymbol \<times> nat) list" where
  "mozjs_parse_row_188 =
    [(mozjs_sym_import, 1340), (mozjs_sym_statement_block, 632),
     (mozjs_sym_parenthesized_expression, 578), (mozjs_sym_expression, 901),
     (mozjs_sym_primary_expression, 584), (mozjs_sym_yield_expression, 638),
     (mozjs_sym_object, 645), (mozjs_sym_object_pattern, 1808),
     (mozjs_sym_array, 645), (mozjs_sym_array_pattern, 1808),
     (mozjs_sym_jsx_element, 638), (mozjs_sym_jsx_opening_element, 1152),
     (mozjs_sym_jsx_self_closing_element, 638), (mozjs_sym_class, 645),
     (mozjs_sym_function_expression, 645), (mozjs_sym_generator_function, 645),
     (mozjs_sym_arrow_function, 645), (mozjs_sym_call_expression, 645),
     (mozjs_sym_new_expression, 587), (mozjs_sym_await_expression, 638),
     (mozjs_sym_member_expression, 578), (mozjs_sym_subscript_expression, 578),
     (mozjs_sym_assignment_expression, 638), (mozjs_sym__augmented_assignment_lhs, 1147),
     (mozjs_sym_augmented_assignment_expression, 638), (mozjs_sym__destructuring_pattern, 1808),
     (mozjs_sym_ternary_expression, 638), (mozjs_sym_binary_expression, 638),
     (mozjs_sym_unary_expression, 638), (mozjs_sym_update_expression, 638),
     (mozjs_sym_string, 645), (mozjs_sym_template_string, 645),
     (mozjs_sym_regex, 645), (mozjs_sym_meta_property, 645),
     (mozjs_sym_decorator, 1112), (mozjs_sym_formal_parameters, 1838),
     (mozjs_aux_sym_export_statement_repeat1, 1395), (mozjs_sym_identifier, 620),
     (mozjs_anon_sym_export, 622), (mozjs_anon_sym_LBRACE, 998),
     (mozjs_anon_sym_import, 390), (mozjs_anon_sym_let, 622),
     (mozjs_anon_sym_await, 627), (mozjs_anon_sym_LPAREN, 657),
     (mozjs_anon_sym_yield, 629), (mozjs_anon_sym_LBRACK, 683),
     (mozjs_anon_sym_LT, 827), (mozjs_anon_sym_DQUOTE, 407),
     (mozjs_anon_sym_SQUOTE, 409), (mozjs_anon_sym_class, 411),
     (mozjs_anon_sym_async, 633), (mozjs_anon_sym_function, 415),
     (mozjs_anon_sym_new, 637), (mozjs_anon_sym_PLUS, 642),
     (mozjs_anon_sym_DASH, 642), (mozjs_anon_sym_SLASH, 665),
     (mozjs_anon_sym_BANG, 644), (mozjs_anon_sym_TILDE, 644),
     (mozjs_anon_sym_typeof, 642), (mozjs_anon_sym_void, 642),
     (mozjs_anon_sym_delete, 642), (mozjs_anon_sym_PLUS_PLUS, 695),
     (mozjs_anon_sym_DASH_DASH, 695), (mozjs_sym_comment, 5),
     (mozjs_anon_sym_BQUOTE, 669), (mozjs_sym_number, 437),
     (mozjs_sym_private_property_identifier, 649), (mozjs_sym_this, 441),
     (mozjs_sym_super, 441), (mozjs_sym_true, 441),
     (mozjs_sym_false, 441), (mozjs_sym_null, 441),
     (mozjs_sym_undefined, 651), (mozjs_anon_sym_AT, 93),
     (mozjs_anon_sym_static, 622), (mozjs_anon_sym_get, 622),
     (mozjs_anon_sym_set, 622), (mozjs_sym_html_comment, 5)]"

definition mozjs_parse_row_189 :: "(TSSymbol \<times> nat) list" where
  "mozjs_parse_row_189 =
    [(mozjs_sym_import, 1333), (mozjs_sym_statement_block, 806),
     (mozjs_sym_parenthesized_expression, 556), (mozjs_sym_expression, 808),
     (mozjs_sym_primary_expression, 693), (mozjs_sym_yield_expression, 743),
     (mozjs_sym_object, 793), (mozjs_sym_object_pattern, 1845),
     (mozjs_sym_array, 793), (mozjs_sym_array_pattern, 1845),
     (mozjs_sym_jsx_element, 743), (mozjs_sym_jsx_opening_element, 1158),
     (mozjs_sym_jsx_self_closing_element, 743), (mozjs_sym_class, 793),
     (mozjs_sym_function_expression, 793), (mozjs_sym_generator_function, 793),
     (mozjs_sym_arrow_function, 793), (mozjs_sym_call_expression, 793),
     (mozjs_sym_new_expression, 692), (mozjs_sym_await_expression, 743),
     (mozjs_sym_member_expression, 556), (mozjs_sym_subscript_expression, 556),
     (mozjs_sym_assignment_expression, 743), (mozjs_sym__augmented_assignment_lhs, 1146),
     (mozjs_sym_augmented_assignment_expression, 743), (mozjs_sym__destructuring_pattern, 1845),
     (mozjs_sym_ternary_expression, 743), (mozjs_sym_binary_expression, 743),
     (mozjs_sym_unary_expression, 743), (mozjs_sym_update_expression, 743),
     (mozjs_sym_string, 793), (mozjs_sym_template_string, 793),
     (mozjs_sym_regex, 793), (mozjs_sym_meta_property, 793),
     (mozjs_sym_decorator, 1112), (mozjs_sym_formal_parameters, 1847),
     (mozjs_aux_sym_export_statement_repeat1, 1331), (mozjs_sym_identifier, 303),
     (mozjs_anon_sym_export, 305), (mozjs_anon_sym_LBRACE, 996),
     (mozjs_anon_sym_import, 315), (mozjs_anon_sym_let, 305),
     (mozjs_anon_sym_await, 319), (mozjs_anon_sym_LPAREN, 37),
     (mozjs_anon_sym_yield, 57), (mozjs_anon_sym_LBRACK, 59),
     (mozjs_anon_sym_LT, 61), (mozjs_anon_sym_DQUOTE, 63),
     (mozjs_anon_sym_SQUOTE, 65), (mozjs_anon_sym_class, 336),
     (mozjs_anon_sym_async, 338), (mozjs_anon_sym_function, 340),
     (mozjs_anon_sym_new, 73), (mozjs_anon_sym_PLUS, 75),
     (mozjs_anon_sym_DASH, 75), (mozjs_anon_sym_SLASH, 77),
     (mozjs_anon_sym_BANG, 79), (mozjs_anon_sym_TILDE, 79),
     (mozjs_anon_sym_typeof, 75), (mozjs_anon_sym_void, 75),
     (mozjs_anon_sym_delete, 75), (mozjs_anon_sym_PLUS_PLUS, 81),
     (mozjs_anon_sym_DASH_DASH, 81), (mozjs_sym_comment, 5),
     (mozjs_anon_sym_BQUOTE, 83), (mozjs_sym_number, 85),
     (mozjs_sym_private_property_identifier, 358), (mozjs_sym_this, 89),
     (mozjs_sym_super, 89), (mozjs_sym_true, 89),
     (mozjs_sym_false, 89), (mozjs_sym_null, 89),
     (mozjs_sym_undefined, 91), (mozjs_anon_sym_AT, 93),
     (mozjs_anon_sym_static, 305), (mozjs_anon_sym_get, 305),
     (mozjs_anon_sym_set, 305), (mozjs_sym_html_comment, 5)]"

definition mozjs_parse_row_190 :: "(TSSymbol \<times> nat) list" where
  "mozjs_parse_row_190 =
    [(mozjs_sym_import, 1340), (mozjs_sym_parenthesized_expression, 525),
     (mozjs_sym_expression, 843), (mozjs_sym_primary_expression, 584),
     (mozjs_sym_yield_expression, 638), (mozjs_sym_object, 645),
     (mozjs_sym_object_pattern, 1827), (mozjs_sym_array, 645),
     (mozjs_sym_array_pattern, 1827), (mozjs_sym_jsx_element, 638),
     (mozjs_sym_jsx_opening_element, 1152), (mozjs_sym_jsx_self_closing_element, 638),
     (mozjs_sym_class, 645), (mozjs_sym_function_expression, 645),
     (mozjs_sym_generator_function, 645), (mozjs_sym_arrow_function, 645),
     (mozjs_sym_call_expression, 645), (mozjs_sym_new_expression, 587),
     (mozjs_sym_await_expression, 638), (mozjs_sym_member_expression, 525),
     (mozjs_sym_subscript_expression, 525), (mozjs_sym_assignment_expression, 638),
     (mozjs_sym__augmented_assignment_lhs, 1145), (mozjs_sym_augmented_assignment_expression,
       638),
     (mozjs_sym__destructuring_pattern, 1827), (mozjs_sym_ternary_expression, 638),
     (mozjs_sym_binary_expression, 638), (mozjs_sym_unary_expression, 638),
     (mozjs_sym_update_expression, 638), (mozjs_sym_sequence_expression, 1858),
     (mozjs_sym_string, 645), (mozjs_sym_template_string, 645),
     (mozjs_sym_regex, 645), (mozjs_sym_meta_property, 645),
     (mozjs_sym_decorator, 1112), (mozjs_sym_formal_parameters, 1777),
     (mozjs_aux_sym_export_statement_repeat1, 1395), (mozjs_sym_identifier, 384),
     (mozjs_anon_sym_export, 386), (mozjs_anon_sym_LBRACE, 388),
     (mozjs_anon_sym_import, 390), (mozjs_anon_sym_let, 386),
     (mozjs_anon_sym_await, 392), (mozjs_anon_sym_LPAREN, 657),
     (mozjs_anon_sym_yield, 397), (mozjs_anon_sym_LBRACK, 661),
     (mozjs_anon_sym_LT, 827), (mozjs_anon_sym_DQUOTE, 407),
     (mozjs_anon_sym_SQUOTE, 409), (mozjs_anon_sym_class, 411),
     (mozjs_anon_sym_async, 413), (mozjs_anon_sym_function, 415),
     (mozjs_anon_sym_new, 419), (mozjs_anon_sym_PLUS, 427),
     (mozjs_anon_sym_DASH, 427), (mozjs_anon_sym_SLASH, 665),
     (mozjs_anon_sym_BANG, 429), (mozjs_anon_sym_TILDE, 429),
     (mozjs_anon_sym_typeof, 427), (mozjs_anon_sym_void, 427),
     (mozjs_anon_sym_delete, 427), (mozjs_anon_sym_PLUS_PLUS, 667),
     (mozjs_anon_sym_DASH_DASH, 667), (mozjs_sym_comment, 5),
     (mozjs_anon_sym_BQUOTE, 669), (mozjs_sym_number, 437),
     (mozjs_sym_private_property_identifier, 439), (mozjs_sym_this, 441),
     (mozjs_sym_super, 441), (mozjs_sym_true, 441),
     (mozjs_sym_false, 441), (mozjs_sym_null, 441),
     (mozjs_sym_undefined, 443), (mozjs_anon_sym_AT, 93),
     (mozjs_anon_sym_static, 386), (mozjs_anon_sym_get, 386),
     (mozjs_anon_sym_set, 386), (mozjs_sym_html_comment, 5)]"

definition mozjs_parse_row_191 :: "(TSSymbol \<times> nat) list" where
  "mozjs_parse_row_191 =
    [(mozjs_sym_import, 1340), (mozjs_sym_statement_block, 598),
     (mozjs_sym_parenthesized_expression, 578), (mozjs_sym_expression, 913),
     (mozjs_sym_primary_expression, 584), (mozjs_sym_yield_expression, 638),
     (mozjs_sym_object, 645), (mozjs_sym_object_pattern, 1808),
     (mozjs_sym_array, 645), (mozjs_sym_array_pattern, 1808),
     (mozjs_sym_jsx_element, 638), (mozjs_sym_jsx_opening_element, 1152),
     (mozjs_sym_jsx_self_closing_element, 638), (mozjs_sym_class, 645),
     (mozjs_sym_function_expression, 645), (mozjs_sym_generator_function, 645),
     (mozjs_sym_arrow_function, 645), (mozjs_sym_call_expression, 645),
     (mozjs_sym_new_expression, 587), (mozjs_sym_await_expression, 638),
     (mozjs_sym_member_expression, 578), (mozjs_sym_subscript_expression, 578),
     (mozjs_sym_assignment_expression, 638), (mozjs_sym__augmented_assignment_lhs, 1147),
     (mozjs_sym_augmented_assignment_expression, 638), (mozjs_sym__destructuring_pattern, 1808),
     (mozjs_sym_ternary_expression, 638), (mozjs_sym_binary_expression, 638),
     (mozjs_sym_unary_expression, 638), (mozjs_sym_update_expression, 638),
     (mozjs_sym_string, 645), (mozjs_sym_template_string, 645),
     (mozjs_sym_regex, 645), (mozjs_sym_meta_property, 645),
     (mozjs_sym_decorator, 1112), (mozjs_sym_formal_parameters, 1838),
     (mozjs_aux_sym_export_statement_repeat1, 1395), (mozjs_sym_identifier, 620),
     (mozjs_anon_sym_export, 622), (mozjs_anon_sym_LBRACE, 998),
     (mozjs_anon_sym_import, 390), (mozjs_anon_sym_let, 622),
     (mozjs_anon_sym_await, 627), (mozjs_anon_sym_LPAREN, 657),
     (mozjs_anon_sym_yield, 629), (mozjs_anon_sym_LBRACK, 683),
     (mozjs_anon_sym_LT, 827), (mozjs_anon_sym_DQUOTE, 407),
     (mozjs_anon_sym_SQUOTE, 409), (mozjs_anon_sym_class, 411),
     (mozjs_anon_sym_async, 633), (mozjs_anon_sym_function, 415),
     (mozjs_anon_sym_new, 637), (mozjs_anon_sym_PLUS, 642),
     (mozjs_anon_sym_DASH, 642), (mozjs_anon_sym_SLASH, 665),
     (mozjs_anon_sym_BANG, 644), (mozjs_anon_sym_TILDE, 644),
     (mozjs_anon_sym_typeof, 642), (mozjs_anon_sym_void, 642),
     (mozjs_anon_sym_delete, 642), (mozjs_anon_sym_PLUS_PLUS, 695),
     (mozjs_anon_sym_DASH_DASH, 695), (mozjs_sym_comment, 5),
     (mozjs_anon_sym_BQUOTE, 669), (mozjs_sym_number, 437),
     (mozjs_sym_private_property_identifier, 649), (mozjs_sym_this, 441),
     (mozjs_sym_super, 441), (mozjs_sym_true, 441),
     (mozjs_sym_false, 441), (mozjs_sym_null, 441),
     (mozjs_sym_undefined, 651), (mozjs_anon_sym_AT, 93),
     (mozjs_anon_sym_static, 622), (mozjs_anon_sym_get, 622),
     (mozjs_anon_sym_set, 622), (mozjs_sym_html_comment, 5)]"

definition mozjs_parse_row_192 :: "(TSSymbol \<times> nat) list" where
  "mozjs_parse_row_192 =
    [(mozjs_sym_import, 1340), (mozjs_sym_statement_block, 625),
     (mozjs_sym_parenthesized_expression, 578), (mozjs_sym_expression, 939),
     (mozjs_sym_primary_expression, 584), (mozjs_sym_yield_expression, 638),
     (mozjs_sym_object, 645), (mozjs_sym_object_pattern, 1808),
     (mozjs_sym_array, 645), (mozjs_sym_array_pattern, 1808),
     (mozjs_sym_jsx_element, 638), (mozjs_sym_jsx_opening_element, 1152),
     (mozjs_sym_jsx_self_closing_element, 638), (mozjs_sym_class, 645),
     (mozjs_sym_function_expression, 645), (mozjs_sym_generator_function, 645),
     (mozjs_sym_arrow_function, 645), (mozjs_sym_call_expression, 645),
     (mozjs_sym_new_expression, 587), (mozjs_sym_await_expression, 638),
     (mozjs_sym_member_expression, 578), (mozjs_sym_subscript_expression, 578),
     (mozjs_sym_assignment_expression, 638), (mozjs_sym__augmented_assignment_lhs, 1147),
     (mozjs_sym_augmented_assignment_expression, 638), (mozjs_sym__destructuring_pattern, 1808),
     (mozjs_sym_ternary_expression, 638), (mozjs_sym_binary_expression, 638),
     (mozjs_sym_unary_expression, 638), (mozjs_sym_update_expression, 638),
     (mozjs_sym_string, 645), (mozjs_sym_template_string, 645),
     (mozjs_sym_regex, 645), (mozjs_sym_meta_property, 645),
     (mozjs_sym_decorator, 1112), (mozjs_sym_formal_parameters, 1838),
     (mozjs_aux_sym_export_statement_repeat1, 1395), (mozjs_sym_identifier, 620),
     (mozjs_anon_sym_export, 622), (mozjs_anon_sym_LBRACE, 998),
     (mozjs_anon_sym_import, 390), (mozjs_anon_sym_let, 622),
     (mozjs_anon_sym_await, 627), (mozjs_anon_sym_LPAREN, 657),
     (mozjs_anon_sym_yield, 629), (mozjs_anon_sym_LBRACK, 683),
     (mozjs_anon_sym_LT, 827), (mozjs_anon_sym_DQUOTE, 407),
     (mozjs_anon_sym_SQUOTE, 409), (mozjs_anon_sym_class, 411),
     (mozjs_anon_sym_async, 633), (mozjs_anon_sym_function, 415),
     (mozjs_anon_sym_new, 637), (mozjs_anon_sym_PLUS, 642),
     (mozjs_anon_sym_DASH, 642), (mozjs_anon_sym_SLASH, 665),
     (mozjs_anon_sym_BANG, 644), (mozjs_anon_sym_TILDE, 644),
     (mozjs_anon_sym_typeof, 642), (mozjs_anon_sym_void, 642),
     (mozjs_anon_sym_delete, 642), (mozjs_anon_sym_PLUS_PLUS, 695),
     (mozjs_anon_sym_DASH_DASH, 695), (mozjs_sym_comment, 5),
     (mozjs_anon_sym_BQUOTE, 669), (mozjs_sym_number, 437),
     (mozjs_sym_private_property_identifier, 649), (mozjs_sym_this, 441),
     (mozjs_sym_super, 441), (mozjs_sym_true, 441),
     (mozjs_sym_false, 441), (mozjs_sym_null, 441),
     (mozjs_sym_undefined, 651), (mozjs_anon_sym_AT, 93),
     (mozjs_anon_sym_static, 622), (mozjs_anon_sym_get, 622),
     (mozjs_anon_sym_set, 622), (mozjs_sym_html_comment, 5)]"

definition mozjs_parse_row_193 :: "(TSSymbol \<times> nat) list" where
  "mozjs_parse_row_193 =
    [(mozjs_sym_import, 1333), (mozjs_sym_parenthesized_expression, 546),
     (mozjs_sym_expression, 984), (mozjs_sym_primary_expression, 671),
     (mozjs_sym_yield_expression, 638), (mozjs_sym_object, 793),
     (mozjs_sym_object_pattern, 1766), (mozjs_sym_array, 793),
     (mozjs_sym_array_pattern, 1766), (mozjs_sym_jsx_element, 638),
     (mozjs_sym_jsx_opening_element, 1152), (mozjs_sym_jsx_self_closing_element, 638),
     (mozjs_sym_class, 793), (mozjs_sym_function_expression, 793),
     (mozjs_sym_generator_function, 793), (mozjs_sym_arrow_function, 793),
     (mozjs_sym_call_expression, 793), (mozjs_sym_new_expression, 682),
     (mozjs_sym_await_expression, 638), (mozjs_sym_member_expression, 546),
     (mozjs_sym_subscript_expression, 546), (mozjs_sym_assignment_expression, 638),
     (mozjs_sym__augmented_assignment_lhs, 1144), (mozjs_sym_augmented_assignment_expression,
       638),
     (mozjs_sym__destructuring_pattern, 1766), (mozjs_sym_ternary_expression, 638),
     (mozjs_sym_binary_expression, 638), (mozjs_sym_unary_expression, 638),
     (mozjs_sym_update_expression, 638), (mozjs_sym_string, 793),
     (mozjs_sym_template_string, 793), (mozjs_sym_regex, 793),
     (mozjs_sym_meta_property, 793), (mozjs_sym_decorator, 1112),
     (mozjs_sym_formal_parameters, 1847), (mozjs_aux_sym_export_statement_repeat1, 1331),
     (mozjs_sym_identifier, 1022), (mozjs_anon_sym_export, 1024),
     (mozjs_anon_sym_LBRACE, 309), (mozjs_anon_sym_import, 315),
     (mozjs_anon_sym_let, 1024), (mozjs_anon_sym_await, 1026),
     (mozjs_anon_sym_LPAREN, 37), (mozjs_anon_sym_yield, 469),
     (mozjs_anon_sym_LBRACK, 59), (mozjs_anon_sym_LT, 827),
     (mozjs_anon_sym_DOT, 1028), (mozjs_anon_sym_DQUOTE, 63),
     (mozjs_anon_sym_SQUOTE, 65), (mozjs_anon_sym_class, 336),
     (mozjs_anon_sym_async, 1030), (mozjs_anon_sym_function, 340),
     (mozjs_anon_sym_new, 73), (mozjs_anon_sym_PLUS, 483),
     (mozjs_anon_sym_DASH, 483), (mozjs_anon_sym_SLASH, 77),
     (mozjs_anon_sym_BANG, 485), (mozjs_anon_sym_TILDE, 485),
     (mozjs_anon_sym_typeof, 483), (mozjs_anon_sym_void, 483),
     (mozjs_anon_sym_delete, 483), (mozjs_anon_sym_PLUS_PLUS, 691),
     (mozjs_anon_sym_DASH_DASH, 691), (mozjs_sym_comment, 5),
     (mozjs_anon_sym_BQUOTE, 83), (mozjs_sym_number, 85),
     (mozjs_sym_private_property_identifier, 490), (mozjs_sym_this, 89),
     (mozjs_sym_super, 89), (mozjs_sym_true, 89),
     (mozjs_sym_false, 89), (mozjs_sym_null, 89),
     (mozjs_sym_undefined, 1032), (mozjs_anon_sym_AT, 93),
     (mozjs_anon_sym_static, 1024), (mozjs_anon_sym_get, 1024),
     (mozjs_anon_sym_set, 1024), (mozjs_sym_html_comment, 5)]"

definition mozjs_parse_row_194 :: "(TSSymbol \<times> nat) list" where
  "mozjs_parse_row_194 =
    [(mozjs_sym_import, 1340), (mozjs_sym_statement_block, 598),
     (mozjs_sym_parenthesized_expression, 499), (mozjs_sym_expression, 917),
     (mozjs_sym_primary_expression, 584), (mozjs_sym_yield_expression, 638),
     (mozjs_sym_object, 645), (mozjs_sym_object_pattern, 1766),
     (mozjs_sym_array, 645), (mozjs_sym_array_pattern, 1766),
     (mozjs_sym_jsx_element, 638), (mozjs_sym_jsx_opening_element, 1152),
     (mozjs_sym_jsx_self_closing_element, 638), (mozjs_sym_class, 645),
     (mozjs_sym_function_expression, 645), (mozjs_sym_generator_function, 645),
     (mozjs_sym_arrow_function, 645), (mozjs_sym_call_expression, 645),
     (mozjs_sym_new_expression, 587), (mozjs_sym_await_expression, 638),
     (mozjs_sym_member_expression, 499), (mozjs_sym_subscript_expression, 499),
     (mozjs_sym_assignment_expression, 638), (mozjs_sym__augmented_assignment_lhs, 1144),
     (mozjs_sym_augmented_assignment_expression, 638), (mozjs_sym__destructuring_pattern, 1766),
     (mozjs_sym_ternary_expression, 638), (mozjs_sym_binary_expression, 638),
     (mozjs_sym_unary_expression, 638), (mozjs_sym_update_expression, 638),
     (mozjs_sym_string, 645), (mozjs_sym_template_string, 645),
     (mozjs_sym_regex, 645), (mozjs_sym_meta_property, 645),
     (mozjs_sym_decorator, 1112), (mozjs_sym_formal_parameters, 1828),
     (mozjs_aux_sym_export_statement_repeat1, 1395), (mozjs_sym_identifier, 461),
     (mozjs_anon_sym_export, 463), (mozjs_anon_sym_LBRACE, 998),
     (mozjs_anon_sym_import, 390), (mozjs_anon_sym_let, 463),
     (mozjs_anon_sym_await, 467), (mozjs_anon_sym_LPAREN, 657),
     (mozjs_anon_sym_yield, 469), (mozjs_anon_sym_LBRACK, 683),
     (mozjs_anon_sym_LT, 827), (mozjs_anon_sym_DQUOTE, 407),
     (mozjs_anon_sym_SQUOTE, 409), (mozjs_anon_sym_class, 411),
     (mozjs_anon_sym_async, 476), (mozjs_anon_sym_function, 415),
     (mozjs_anon_sym_new, 478), (mozjs_anon_sym_PLUS, 483),
     (mozjs_anon_sym_DASH, 483), (mozjs_anon_sym_SLASH, 665),
     (mozjs_anon_sym_BANG, 485), (mozjs_anon_sym_TILDE, 485),
     (mozjs_anon_sym_typeof, 483), (mozjs_anon_sym_void, 483),
     (mozjs_anon_sym_delete, 483), (mozjs_anon_sym_PLUS_PLUS, 691),
     (mozjs_anon_sym_DASH_DASH, 691), (mozjs_sym_comment, 5),
     (mozjs_anon_sym_BQUOTE, 669), (mozjs_sym_number, 437),
     (mozjs_sym_private_property_identifier, 490), (mozjs_sym_this, 441),
     (mozjs_sym_super, 441), (mozjs_sym_true, 441),
     (mozjs_sym_false, 441), (mozjs_sym_null, 441),
     (mozjs_sym_undefined, 492), (mozjs_anon_sym_AT, 93),
     (mozjs_anon_sym_static, 463), (mozjs_anon_sym_get, 463),
     (mozjs_anon_sym_set, 463), (mozjs_sym_html_comment, 5)]"

definition mozjs_parse_row_195 :: "(TSSymbol \<times> nat) list" where
  "mozjs_parse_row_195 =
    [(mozjs_sym_import, 1340), (mozjs_sym_statement_block, 644),
     (mozjs_sym_parenthesized_expression, 578), (mozjs_sym_expression, 900),
     (mozjs_sym_primary_expression, 584), (mozjs_sym_yield_expression, 638),
     (mozjs_sym_object, 645), (mozjs_sym_object_pattern, 1808),
     (mozjs_sym_array, 645), (mozjs_sym_array_pattern, 1808),
     (mozjs_sym_jsx_element, 638), (mozjs_sym_jsx_opening_element, 1152),
     (mozjs_sym_jsx_self_closing_element, 638), (mozjs_sym_class, 645),
     (mozjs_sym_function_expression, 645), (mozjs_sym_generator_function, 645),
     (mozjs_sym_arrow_function, 645), (mozjs_sym_call_expression, 645),
     (mozjs_sym_new_expression, 587), (mozjs_sym_await_expression, 638),
     (mozjs_sym_member_expression, 578), (mozjs_sym_subscript_expression, 578),
     (mozjs_sym_assignment_expression, 638), (mozjs_sym__augmented_assignment_lhs, 1147),
     (mozjs_sym_augmented_assignment_expression, 638), (mozjs_sym__destructuring_pattern, 1808),
     (mozjs_sym_ternary_expression, 638), (mozjs_sym_binary_expression, 638),
     (mozjs_sym_unary_expression, 638), (mozjs_sym_update_expression, 638),
     (mozjs_sym_string, 645), (mozjs_sym_template_string, 645),
     (mozjs_sym_regex, 645), (mozjs_sym_meta_property, 645),
     (mozjs_sym_decorator, 1112), (mozjs_sym_formal_parameters, 1838),
     (mozjs_aux_sym_export_statement_repeat1, 1395), (mozjs_sym_identifier, 620),
     (mozjs_anon_sym_export, 622), (mozjs_anon_sym_LBRACE, 998),
     (mozjs_anon_sym_import, 390), (mozjs_anon_sym_let, 622),
     (mozjs_anon_sym_await, 627), (mozjs_anon_sym_LPAREN, 657),
     (mozjs_anon_sym_yield, 629), (mozjs_anon_sym_LBRACK, 683),
     (mozjs_anon_sym_LT, 827), (mozjs_anon_sym_DQUOTE, 407),
     (mozjs_anon_sym_SQUOTE, 409), (mozjs_anon_sym_class, 411),
     (mozjs_anon_sym_async, 633), (mozjs_anon_sym_function, 415),
     (mozjs_anon_sym_new, 637), (mozjs_anon_sym_PLUS, 642),
     (mozjs_anon_sym_DASH, 642), (mozjs_anon_sym_SLASH, 665),
     (mozjs_anon_sym_BANG, 644), (mozjs_anon_sym_TILDE, 644),
     (mozjs_anon_sym_typeof, 642), (mozjs_anon_sym_void, 642),
     (mozjs_anon_sym_delete, 642), (mozjs_anon_sym_PLUS_PLUS, 695),
     (mozjs_anon_sym_DASH_DASH, 695), (mozjs_sym_comment, 5),
     (mozjs_anon_sym_BQUOTE, 669), (mozjs_sym_number, 437),
     (mozjs_sym_private_property_identifier, 649), (mozjs_sym_this, 441),
     (mozjs_sym_super, 441), (mozjs_sym_true, 441),
     (mozjs_sym_false, 441), (mozjs_sym_null, 441),
     (mozjs_sym_undefined, 651), (mozjs_anon_sym_AT, 93),
     (mozjs_anon_sym_static, 622), (mozjs_anon_sym_get, 622),
     (mozjs_anon_sym_set, 622), (mozjs_sym_html_comment, 5)]"

definition mozjs_parse_row_196 :: "(TSSymbol \<times> nat) list" where
  "mozjs_parse_row_196 =
    [(mozjs_sym_import, 1340), (mozjs_sym_statement_block, 625),
     (mozjs_sym_parenthesized_expression, 499), (mozjs_sym_expression, 921),
     (mozjs_sym_primary_expression, 584), (mozjs_sym_yield_expression, 638),
     (mozjs_sym_object, 645), (mozjs_sym_object_pattern, 1766),
     (mozjs_sym_array, 645), (mozjs_sym_array_pattern, 1766),
     (mozjs_sym_jsx_element, 638), (mozjs_sym_jsx_opening_element, 1152),
     (mozjs_sym_jsx_self_closing_element, 638), (mozjs_sym_class, 645),
     (mozjs_sym_function_expression, 645), (mozjs_sym_generator_function, 645),
     (mozjs_sym_arrow_function, 645), (mozjs_sym_call_expression, 645),
     (mozjs_sym_new_expression, 587), (mozjs_sym_await_expression, 638),
     (mozjs_sym_member_expression, 499), (mozjs_sym_subscript_expression, 499),
     (mozjs_sym_assignment_expression, 638), (mozjs_sym__augmented_assignment_lhs, 1144),
     (mozjs_sym_augmented_assignment_expression, 638), (mozjs_sym__destructuring_pattern, 1766),
     (mozjs_sym_ternary_expression, 638), (mozjs_sym_binary_expression, 638),
     (mozjs_sym_unary_expression, 638), (mozjs_sym_update_expression, 638),
     (mozjs_sym_string, 645), (mozjs_sym_template_string, 645),
     (mozjs_sym_regex, 645), (mozjs_sym_meta_property, 645),
     (mozjs_sym_decorator, 1112), (mozjs_sym_formal_parameters, 1828),
     (mozjs_aux_sym_export_statement_repeat1, 1395), (mozjs_sym_identifier, 461),
     (mozjs_anon_sym_export, 463), (mozjs_anon_sym_LBRACE, 998),
     (mozjs_anon_sym_import, 390), (mozjs_anon_sym_let, 463),
     (mozjs_anon_sym_await, 467), (mozjs_anon_sym_LPAREN, 657),
     (mozjs_anon_sym_yield, 469), (mozjs_anon_sym_LBRACK, 683),
     (mozjs_anon_sym_LT, 827), (mozjs_anon_sym_DQUOTE, 407),
     (mozjs_anon_sym_SQUOTE, 409), (mozjs_anon_sym_class, 411),
     (mozjs_anon_sym_async, 476), (mozjs_anon_sym_function, 415),
     (mozjs_anon_sym_new, 478), (mozjs_anon_sym_PLUS, 483),
     (mozjs_anon_sym_DASH, 483), (mozjs_anon_sym_SLASH, 665),
     (mozjs_anon_sym_BANG, 485), (mozjs_anon_sym_TILDE, 485),
     (mozjs_anon_sym_typeof, 483), (mozjs_anon_sym_void, 483),
     (mozjs_anon_sym_delete, 483), (mozjs_anon_sym_PLUS_PLUS, 691),
     (mozjs_anon_sym_DASH_DASH, 691), (mozjs_sym_comment, 5),
     (mozjs_anon_sym_BQUOTE, 669), (mozjs_sym_number, 437),
     (mozjs_sym_private_property_identifier, 490), (mozjs_sym_this, 441),
     (mozjs_sym_super, 441), (mozjs_sym_true, 441),
     (mozjs_sym_false, 441), (mozjs_sym_null, 441),
     (mozjs_sym_undefined, 492), (mozjs_anon_sym_AT, 93),
     (mozjs_anon_sym_static, 463), (mozjs_anon_sym_get, 463),
     (mozjs_anon_sym_set, 463), (mozjs_sym_html_comment, 5)]"

definition mozjs_parse_row_197 :: "(TSSymbol \<times> nat) list" where
  "mozjs_parse_row_197 =
    [(mozjs_sym_import, 1340), (mozjs_sym_statement_block, 644),
     (mozjs_sym_parenthesized_expression, 499), (mozjs_sym_expression, 935),
     (mozjs_sym_primary_expression, 584), (mozjs_sym_yield_expression, 638),
     (mozjs_sym_object, 645), (mozjs_sym_object_pattern, 1766),
     (mozjs_sym_array, 645), (mozjs_sym_array_pattern, 1766),
     (mozjs_sym_jsx_element, 638), (mozjs_sym_jsx_opening_element, 1152),
     (mozjs_sym_jsx_self_closing_element, 638), (mozjs_sym_class, 645),
     (mozjs_sym_function_expression, 645), (mozjs_sym_generator_function, 645),
     (mozjs_sym_arrow_function, 645), (mozjs_sym_call_expression, 645),
     (mozjs_sym_new_expression, 587), (mozjs_sym_await_expression, 638),
     (mozjs_sym_member_expression, 499), (mozjs_sym_subscript_expression, 499),
     (mozjs_sym_assignment_expression, 638), (mozjs_sym__augmented_assignment_lhs, 1144),
     (mozjs_sym_augmented_assignment_expression, 638), (mozjs_sym__destructuring_pattern, 1766),
     (mozjs_sym_ternary_expression, 638), (mozjs_sym_binary_expression, 638),
     (mozjs_sym_unary_expression, 638), (mozjs_sym_update_expression, 638),
     (mozjs_sym_string, 645), (mozjs_sym_template_string, 645),
     (mozjs_sym_regex, 645), (mozjs_sym_meta_property, 645),
     (mozjs_sym_decorator, 1112), (mozjs_sym_formal_parameters, 1828),
     (mozjs_aux_sym_export_statement_repeat1, 1395), (mozjs_sym_identifier, 461),
     (mozjs_anon_sym_export, 463), (mozjs_anon_sym_LBRACE, 998),
     (mozjs_anon_sym_import, 390), (mozjs_anon_sym_let, 463),
     (mozjs_anon_sym_await, 467), (mozjs_anon_sym_LPAREN, 657),
     (mozjs_anon_sym_yield, 469), (mozjs_anon_sym_LBRACK, 683),
     (mozjs_anon_sym_LT, 827), (mozjs_anon_sym_DQUOTE, 407),
     (mozjs_anon_sym_SQUOTE, 409), (mozjs_anon_sym_class, 411),
     (mozjs_anon_sym_async, 476), (mozjs_anon_sym_function, 415),
     (mozjs_anon_sym_new, 478), (mozjs_anon_sym_PLUS, 483),
     (mozjs_anon_sym_DASH, 483), (mozjs_anon_sym_SLASH, 665),
     (mozjs_anon_sym_BANG, 485), (mozjs_anon_sym_TILDE, 485),
     (mozjs_anon_sym_typeof, 483), (mozjs_anon_sym_void, 483),
     (mozjs_anon_sym_delete, 483), (mozjs_anon_sym_PLUS_PLUS, 691),
     (mozjs_anon_sym_DASH_DASH, 691), (mozjs_sym_comment, 5),
     (mozjs_anon_sym_BQUOTE, 669), (mozjs_sym_number, 437),
     (mozjs_sym_private_property_identifier, 490), (mozjs_sym_this, 441),
     (mozjs_sym_super, 441), (mozjs_sym_true, 441),
     (mozjs_sym_false, 441), (mozjs_sym_null, 441),
     (mozjs_sym_undefined, 492), (mozjs_anon_sym_AT, 93),
     (mozjs_anon_sym_static, 463), (mozjs_anon_sym_get, 463),
     (mozjs_anon_sym_set, 463), (mozjs_sym_html_comment, 5)]"

definition mozjs_parse_row_198 :: "(TSSymbol \<times> nat) list" where
  "mozjs_parse_row_198 =
    [(mozjs_sym_import, 1340), (mozjs_sym_statement_block, 632),
     (mozjs_sym_parenthesized_expression, 499), (mozjs_sym_expression, 936),
     (mozjs_sym_primary_expression, 584), (mozjs_sym_yield_expression, 638),
     (mozjs_sym_object, 645), (mozjs_sym_object_pattern, 1766),
     (mozjs_sym_array, 645), (mozjs_sym_array_pattern, 1766),
     (mozjs_sym_jsx_element, 638), (mozjs_sym_jsx_opening_element, 1152),
     (mozjs_sym_jsx_self_closing_element, 638), (mozjs_sym_class, 645),
     (mozjs_sym_function_expression, 645), (mozjs_sym_generator_function, 645),
     (mozjs_sym_arrow_function, 645), (mozjs_sym_call_expression, 645),
     (mozjs_sym_new_expression, 587), (mozjs_sym_await_expression, 638),
     (mozjs_sym_member_expression, 499), (mozjs_sym_subscript_expression, 499),
     (mozjs_sym_assignment_expression, 638), (mozjs_sym__augmented_assignment_lhs, 1144),
     (mozjs_sym_augmented_assignment_expression, 638), (mozjs_sym__destructuring_pattern, 1766),
     (mozjs_sym_ternary_expression, 638), (mozjs_sym_binary_expression, 638),
     (mozjs_sym_unary_expression, 638), (mozjs_sym_update_expression, 638),
     (mozjs_sym_string, 645), (mozjs_sym_template_string, 645),
     (mozjs_sym_regex, 645), (mozjs_sym_meta_property, 645),
     (mozjs_sym_decorator, 1112), (mozjs_sym_formal_parameters, 1828),
     (mozjs_aux_sym_export_statement_repeat1, 1395), (mozjs_sym_identifier, 461),
     (mozjs_anon_sym_export, 463), (mozjs_anon_sym_LBRACE, 998),
     (mozjs_anon_sym_import, 390), (mozjs_anon_sym_let, 463),
     (mozjs_anon_sym_await, 467), (mozjs_anon_sym_LPAREN, 657),
     (mozjs_anon_sym_yield, 469), (mozjs_anon_sym_LBRACK, 683),
     (mozjs_anon_sym_LT, 827), (mozjs_anon_sym_DQUOTE, 407),
     (mozjs_anon_sym_SQUOTE, 409), (mozjs_anon_sym_class, 411),
     (mozjs_anon_sym_async, 476), (mozjs_anon_sym_function, 415),
     (mozjs_anon_sym_new, 478), (mozjs_anon_sym_PLUS, 483),
     (mozjs_anon_sym_DASH, 483), (mozjs_anon_sym_SLASH, 665),
     (mozjs_anon_sym_BANG, 485), (mozjs_anon_sym_TILDE, 485),
     (mozjs_anon_sym_typeof, 483), (mozjs_anon_sym_void, 483),
     (mozjs_anon_sym_delete, 483), (mozjs_anon_sym_PLUS_PLUS, 691),
     (mozjs_anon_sym_DASH_DASH, 691), (mozjs_sym_comment, 5),
     (mozjs_anon_sym_BQUOTE, 669), (mozjs_sym_number, 437),
     (mozjs_sym_private_property_identifier, 490), (mozjs_sym_this, 441),
     (mozjs_sym_super, 441), (mozjs_sym_true, 441),
     (mozjs_sym_false, 441), (mozjs_sym_null, 441),
     (mozjs_sym_undefined, 492), (mozjs_anon_sym_AT, 93),
     (mozjs_anon_sym_static, 463), (mozjs_anon_sym_get, 463),
     (mozjs_anon_sym_set, 463), (mozjs_sym_html_comment, 5)]"

definition mozjs_parse_row_199 :: "(TSSymbol \<times> nat) list" where
  "mozjs_parse_row_199 =
    [(mozjs_sym_import, 1340), (mozjs_sym_statement_block, 637),
     (mozjs_sym_parenthesized_expression, 499), (mozjs_sym_expression, 937),
     (mozjs_sym_primary_expression, 584), (mozjs_sym_yield_expression, 638),
     (mozjs_sym_object, 645), (mozjs_sym_object_pattern, 1766),
     (mozjs_sym_array, 645), (mozjs_sym_array_pattern, 1766),
     (mozjs_sym_jsx_element, 638), (mozjs_sym_jsx_opening_element, 1152),
     (mozjs_sym_jsx_self_closing_element, 638), (mozjs_sym_class, 645),
     (mozjs_sym_function_expression, 645), (mozjs_sym_generator_function, 645),
     (mozjs_sym_arrow_function, 645), (mozjs_sym_call_expression, 645),
     (mozjs_sym_new_expression, 587), (mozjs_sym_await_expression, 638),
     (mozjs_sym_member_expression, 499), (mozjs_sym_subscript_expression, 499),
     (mozjs_sym_assignment_expression, 638), (mozjs_sym__augmented_assignment_lhs, 1144),
     (mozjs_sym_augmented_assignment_expression, 638), (mozjs_sym__destructuring_pattern, 1766),
     (mozjs_sym_ternary_expression, 638), (mozjs_sym_binary_expression, 638),
     (mozjs_sym_unary_expression, 638), (mozjs_sym_update_expression, 638),
     (mozjs_sym_string, 645), (mozjs_sym_template_string, 645),
     (mozjs_sym_regex, 645), (mozjs_sym_meta_property, 645),
     (mozjs_sym_decorator, 1112), (mozjs_sym_formal_parameters, 1828),
     (mozjs_aux_sym_export_statement_repeat1, 1395), (mozjs_sym_identifier, 461),
     (mozjs_anon_sym_export, 463), (mozjs_anon_sym_LBRACE, 998),
     (mozjs_anon_sym_import, 390), (mozjs_anon_sym_let, 463),
     (mozjs_anon_sym_await, 467), (mozjs_anon_sym_LPAREN, 657),
     (mozjs_anon_sym_yield, 469), (mozjs_anon_sym_LBRACK, 683),
     (mozjs_anon_sym_LT, 827), (mozjs_anon_sym_DQUOTE, 407),
     (mozjs_anon_sym_SQUOTE, 409), (mozjs_anon_sym_class, 411),
     (mozjs_anon_sym_async, 476), (mozjs_anon_sym_function, 415),
     (mozjs_anon_sym_new, 478), (mozjs_anon_sym_PLUS, 483),
     (mozjs_anon_sym_DASH, 483), (mozjs_anon_sym_SLASH, 665),
     (mozjs_anon_sym_BANG, 485), (mozjs_anon_sym_TILDE, 485),
     (mozjs_anon_sym_typeof, 483), (mozjs_anon_sym_void, 483),
     (mozjs_anon_sym_delete, 483), (mozjs_anon_sym_PLUS_PLUS, 691),
     (mozjs_anon_sym_DASH_DASH, 691), (mozjs_sym_comment, 5),
     (mozjs_anon_sym_BQUOTE, 669), (mozjs_sym_number, 437),
     (mozjs_sym_private_property_identifier, 490), (mozjs_sym_this, 441),
     (mozjs_sym_super, 441), (mozjs_sym_true, 441),
     (mozjs_sym_false, 441), (mozjs_sym_null, 441),
     (mozjs_sym_undefined, 492), (mozjs_anon_sym_AT, 93),
     (mozjs_anon_sym_static, 463), (mozjs_anon_sym_get, 463),
     (mozjs_anon_sym_set, 463), (mozjs_sym_html_comment, 5)]"

definition mozjs_parse_row_200 :: "(TSSymbol \<times> nat) list" where
  "mozjs_parse_row_200 =
    [(mozjs_sym_import, 1340), (mozjs_sym_statement_block, 649),
     (mozjs_sym_parenthesized_expression, 499), (mozjs_sym_expression, 938),
     (mozjs_sym_primary_expression, 584), (mozjs_sym_yield_expression, 638),
     (mozjs_sym_object, 645), (mozjs_sym_object_pattern, 1766),
     (mozjs_sym_array, 645), (mozjs_sym_array_pattern, 1766),
     (mozjs_sym_jsx_element, 638), (mozjs_sym_jsx_opening_element, 1152),
     (mozjs_sym_jsx_self_closing_element, 638), (mozjs_sym_class, 645),
     (mozjs_sym_function_expression, 645), (mozjs_sym_generator_function, 645),
     (mozjs_sym_arrow_function, 645), (mozjs_sym_call_expression, 645),
     (mozjs_sym_new_expression, 587), (mozjs_sym_await_expression, 638),
     (mozjs_sym_member_expression, 499), (mozjs_sym_subscript_expression, 499),
     (mozjs_sym_assignment_expression, 638), (mozjs_sym__augmented_assignment_lhs, 1144),
     (mozjs_sym_augmented_assignment_expression, 638), (mozjs_sym__destructuring_pattern, 1766),
     (mozjs_sym_ternary_expression, 638), (mozjs_sym_binary_expression, 638),
     (mozjs_sym_unary_expression, 638), (mozjs_sym_update_expression, 638),
     (mozjs_sym_string, 645), (mozjs_sym_template_string, 645),
     (mozjs_sym_regex, 645), (mozjs_sym_meta_property, 645),
     (mozjs_sym_decorator, 1112), (mozjs_sym_formal_parameters, 1828),
     (mozjs_aux_sym_export_statement_repeat1, 1395), (mozjs_sym_identifier, 461),
     (mozjs_anon_sym_export, 463), (mozjs_anon_sym_LBRACE, 998),
     (mozjs_anon_sym_import, 390), (mozjs_anon_sym_let, 463),
     (mozjs_anon_sym_await, 467), (mozjs_anon_sym_LPAREN, 657),
     (mozjs_anon_sym_yield, 469), (mozjs_anon_sym_LBRACK, 683),
     (mozjs_anon_sym_LT, 827), (mozjs_anon_sym_DQUOTE, 407),
     (mozjs_anon_sym_SQUOTE, 409), (mozjs_anon_sym_class, 411),
     (mozjs_anon_sym_async, 476), (mozjs_anon_sym_function, 415),
     (mozjs_anon_sym_new, 478), (mozjs_anon_sym_PLUS, 483),
     (mozjs_anon_sym_DASH, 483), (mozjs_anon_sym_SLASH, 665),
     (mozjs_anon_sym_BANG, 485), (mozjs_anon_sym_TILDE, 485),
     (mozjs_anon_sym_typeof, 483), (mozjs_anon_sym_void, 483),
     (mozjs_anon_sym_delete, 483), (mozjs_anon_sym_PLUS_PLUS, 691),
     (mozjs_anon_sym_DASH_DASH, 691), (mozjs_sym_comment, 5),
     (mozjs_anon_sym_BQUOTE, 669), (mozjs_sym_number, 437),
     (mozjs_sym_private_property_identifier, 490), (mozjs_sym_this, 441),
     (mozjs_sym_super, 441), (mozjs_sym_true, 441),
     (mozjs_sym_false, 441), (mozjs_sym_null, 441),
     (mozjs_sym_undefined, 492), (mozjs_anon_sym_AT, 93),
     (mozjs_anon_sym_static, 463), (mozjs_anon_sym_get, 463),
     (mozjs_anon_sym_set, 463), (mozjs_sym_html_comment, 5)]"

definition mozjs_parse_row_201 :: "(TSSymbol \<times> nat) list" where
  "mozjs_parse_row_201 =
    [(mozjs_sym_import, 1340), (mozjs_sym_parenthesized_expression, 525),
     (mozjs_sym_expression, 891), (mozjs_sym_primary_expression, 584),
     (mozjs_sym_yield_expression, 638), (mozjs_sym_object, 645),
     (mozjs_sym_object_pattern, 1827), (mozjs_sym_array, 645),
     (mozjs_sym_array_pattern, 1827), (mozjs_sym_jsx_element, 638),
     (mozjs_sym_jsx_opening_element, 1152), (mozjs_sym_jsx_self_closing_element, 638),
     (mozjs_sym_class, 645), (mozjs_sym_function_expression, 645),
     (mozjs_sym_generator_function, 645), (mozjs_sym_arrow_function, 645),
     (mozjs_sym_call_expression, 645), (mozjs_sym_new_expression, 587),
     (mozjs_sym_await_expression, 638), (mozjs_sym_member_expression, 525),
     (mozjs_sym_subscript_expression, 525), (mozjs_sym_assignment_expression, 638),
     (mozjs_sym__augmented_assignment_lhs, 1145), (mozjs_sym_augmented_assignment_expression,
       638),
     (mozjs_sym__destructuring_pattern, 1827), (mozjs_sym_ternary_expression, 638),
     (mozjs_sym_binary_expression, 638), (mozjs_sym_unary_expression, 638),
     (mozjs_sym_update_expression, 638), (mozjs_sym_sequence_expression, 1860),
     (mozjs_sym_string, 645), (mozjs_sym_template_string, 645),
     (mozjs_sym_regex, 645), (mozjs_sym_meta_property, 645),
     (mozjs_sym_decorator, 1112), (mozjs_sym_formal_parameters, 1777),
     (mozjs_aux_sym_export_statement_repeat1, 1395), (mozjs_sym_identifier, 384),
     (mozjs_anon_sym_export, 386), (mozjs_anon_sym_LBRACE, 388),
     (mozjs_anon_sym_import, 390), (mozjs_anon_sym_let, 386),
     (mozjs_anon_sym_await, 392), (mozjs_anon_sym_LPAREN, 657),
     (mozjs_anon_sym_yield, 397), (mozjs_anon_sym_LBRACK, 661),
     (mozjs_anon_sym_LT, 827), (mozjs_anon_sym_DQUOTE, 407),
     (mozjs_anon_sym_SQUOTE, 409), (mozjs_anon_sym_class, 411),
     (mozjs_anon_sym_async, 413), (mozjs_anon_sym_function, 415),
     (mozjs_anon_sym_new, 419), (mozjs_anon_sym_PLUS, 427),
     (mozjs_anon_sym_DASH, 427), (mozjs_anon_sym_SLASH, 665),
     (mozjs_anon_sym_BANG, 429), (mozjs_anon_sym_TILDE, 429),
     (mozjs_anon_sym_typeof, 427), (mozjs_anon_sym_void, 427),
     (mozjs_anon_sym_delete, 427), (mozjs_anon_sym_PLUS_PLUS, 667),
     (mozjs_anon_sym_DASH_DASH, 667), (mozjs_sym_comment, 5),
     (mozjs_anon_sym_BQUOTE, 669), (mozjs_sym_number, 437),
     (mozjs_sym_private_property_identifier, 439), (mozjs_sym_this, 441),
     (mozjs_sym_super, 441), (mozjs_sym_true, 441),
     (mozjs_sym_false, 441), (mozjs_sym_null, 441),
     (mozjs_sym_undefined, 443), (mozjs_anon_sym_AT, 93),
     (mozjs_anon_sym_static, 386), (mozjs_anon_sym_get, 386),
     (mozjs_anon_sym_set, 386), (mozjs_sym_html_comment, 5)]"

definition mozjs_parse_row_202 :: "(TSSymbol \<times> nat) list" where
  "mozjs_parse_row_202 =
    [(mozjs_sym_namespace_export, 1633), (mozjs_sym_export_clause, 1400),
     (mozjs_sym_declaration, 441), (mozjs_sym_variable_declaration, 427),
     (mozjs_sym_lexical_declaration, 427), (mozjs_sym_using_declaration, 427),
     (mozjs_sym_class_declaration, 427), (mozjs_sym_function_declaration, 427),
     (mozjs_sym_generator_function_declaration, 427), (mozjs_sym_decorator, 1112),
     (mozjs_aux_sym_export_statement_repeat1, 1355), (mozjs_anon_sym_STAR, 935),
     (mozjs_anon_sym_default, 937), (mozjs_anon_sym_LBRACE, 939),
     (mozjs_anon_sym_COMMA, 311), (mozjs_anon_sym_var, 941),
     (mozjs_anon_sym_let, 943), (mozjs_anon_sym_const, 943),
     (mozjs_anon_sym_using, 945), (mozjs_anon_sym_await, 947),
     (mozjs_anon_sym_LPAREN, 311), (mozjs_anon_sym_SEMI, 311),
     (mozjs_anon_sym_in, 307), (mozjs_anon_sym_COLON, 497),
     (mozjs_anon_sym_EQ, 499), (mozjs_anon_sym_LBRACK, 311),
     (mozjs_anon_sym_LT, 307), (mozjs_anon_sym_GT, 307),
     (mozjs_anon_sym_DOT, 311), (mozjs_anon_sym_class, 952),
     (mozjs_anon_sym_async, 954), (mozjs_anon_sym_function, 956),
     (mozjs_anon_sym_EQ_GT, 342), (mozjs_sym_optional_chain, 311),
     (mozjs_anon_sym_PLUS_EQ, 344), (mozjs_anon_sym_DASH_EQ, 344),
     (mozjs_anon_sym_STAR_EQ, 344), (mozjs_anon_sym_SLASH_EQ, 344),
     (mozjs_anon_sym_PERCENT_EQ, 344), (mozjs_anon_sym_CARET_EQ, 344),
     (mozjs_anon_sym_AMP_EQ, 344), (mozjs_anon_sym_PIPE_EQ, 344),
     (mozjs_anon_sym_GT_GT_EQ, 344), (mozjs_anon_sym_GT_GT_GT_EQ, 344),
     (mozjs_anon_sym_LT_LT_EQ, 344), (mozjs_anon_sym_STAR_STAR_EQ, 344),
     (mozjs_anon_sym_AMP_AMP_EQ, 344), (mozjs_anon_sym_PIPE_PIPE_EQ, 344),
     (mozjs_anon_sym_QMARK_QMARK_EQ, 344), (mozjs_anon_sym_AMP_AMP, 307),
     (mozjs_anon_sym_PIPE_PIPE, 307), (mozjs_anon_sym_GT_GT, 307),
     (mozjs_anon_sym_GT_GT_GT, 307), (mozjs_anon_sym_LT_LT, 307),
     (mozjs_anon_sym_AMP, 307), (mozjs_anon_sym_CARET, 307),
     (mozjs_anon_sym_PIPE, 307), (mozjs_anon_sym_PLUS, 307),
     (mozjs_anon_sym_DASH, 307), (mozjs_anon_sym_SLASH, 307),
     (mozjs_anon_sym_PERCENT, 307), (mozjs_anon_sym_STAR_STAR, 307),
     (mozjs_anon_sym_LT_EQ, 311), (mozjs_anon_sym_EQ_EQ, 307),
     (mozjs_anon_sym_EQ_EQ_EQ, 311), (mozjs_anon_sym_BANG_EQ, 307),
     (mozjs_anon_sym_BANG_EQ_EQ, 311), (mozjs_anon_sym_GT_EQ, 311),
     (mozjs_anon_sym_QMARK_QMARK, 307), (mozjs_anon_sym_instanceof, 311),
     (mozjs_anon_sym_PLUS_PLUS, 311), (mozjs_anon_sym_DASH_DASH, 311),
     (mozjs_sym_comment, 5), (mozjs_anon_sym_BQUOTE, 311),
     (mozjs_anon_sym_AT, 93), (mozjs_sym__automatic_semicolon, 311),
     (mozjs_sym__ternary_qmark, 311), (mozjs_sym_html_comment, 5)]"

definition mozjs_parse_row_203 :: "(TSSymbol \<times> nat) list" where
  "mozjs_parse_row_203 =
    [(mozjs_sym_import, 1340), (mozjs_sym_statement_block, 598),
     (mozjs_sym_parenthesized_expression, 579), (mozjs_sym_expression, 943),
     (mozjs_sym_primary_expression, 584), (mozjs_sym_yield_expression, 638),
     (mozjs_sym_object, 645), (mozjs_sym_object_pattern, 1866),
     (mozjs_sym_array, 645), (mozjs_sym_array_pattern, 1866),
     (mozjs_sym_jsx_element, 638), (mozjs_sym_jsx_opening_element, 1152),
     (mozjs_sym_jsx_self_closing_element, 638), (mozjs_sym_class, 645),
     (mozjs_sym_function_expression, 645), (mozjs_sym_generator_function, 645),
     (mozjs_sym_arrow_function, 645), (mozjs_sym_call_expression, 645),
     (mozjs_sym_new_expression, 587), (mozjs_sym_await_expression, 638),
     (mozjs_sym_member_expression, 579), (mozjs_sym_subscript_expression, 579),
     (mozjs_sym_assignment_expression, 638), (mozjs_sym__augmented_assignment_lhs, 1148),
     (mozjs_sym_augmented_assignment_expression, 638), (mozjs_sym__destructuring_pattern, 1866),
     (mozjs_sym_ternary_expression, 638), (mozjs_sym_binary_expression, 638),
     (mozjs_sym_unary_expression, 638), (mozjs_sym_update_expression, 638),
     (mozjs_sym_string, 645), (mozjs_sym_template_string, 645),
     (mozjs_sym_regex, 645), (mozjs_sym_meta_property, 645),
     (mozjs_sym_decorator, 1112), (mozjs_sym_formal_parameters, 1788),
     (mozjs_aux_sym_export_statement_repeat1, 1395), (mozjs_sym_identifier, 587),
     (mozjs_anon_sym_export, 589), (mozjs_anon_sym_LBRACE, 998),
     (mozjs_anon_sym_import, 390), (mozjs_anon_sym_let, 589),
     (mozjs_anon_sym_await, 591), (mozjs_anon_sym_LPAREN, 657),
     (mozjs_anon_sym_yield, 593), (mozjs_anon_sym_LBRACK, 683),
     (mozjs_anon_sym_LT, 827), (mozjs_anon_sym_DQUOTE, 407),
     (mozjs_anon_sym_SQUOTE, 409), (mozjs_anon_sym_class, 411),
     (mozjs_anon_sym_async, 597), (mozjs_anon_sym_function, 415),
     (mozjs_anon_sym_new, 601), (mozjs_anon_sym_PLUS, 609),
     (mozjs_anon_sym_DASH, 609), (mozjs_anon_sym_SLASH, 685),
     (mozjs_anon_sym_BANG, 611), (mozjs_anon_sym_TILDE, 611),
     (mozjs_anon_sym_typeof, 609), (mozjs_anon_sym_void, 609),
     (mozjs_anon_sym_delete, 609), (mozjs_anon_sym_PLUS_PLUS, 687),
     (mozjs_anon_sym_DASH_DASH, 687), (mozjs_sym_comment, 5),
     (mozjs_anon_sym_BQUOTE, 669), (mozjs_sym_number, 437),
     (mozjs_sym_private_property_identifier, 616), (mozjs_sym_this, 441),
     (mozjs_sym_super, 441), (mozjs_sym_true, 441),
     (mozjs_sym_false, 441), (mozjs_sym_null, 441),
     (mozjs_sym_undefined, 618), (mozjs_anon_sym_AT, 93),
     (mozjs_anon_sym_static, 589), (mozjs_anon_sym_get, 589),
     (mozjs_anon_sym_set, 589), (mozjs_sym_html_comment, 5)]"

definition mozjs_parse_row_204 :: "(TSSymbol \<times> nat) list" where
  "mozjs_parse_row_204 =
    [(mozjs_sym_import, 1340), (mozjs_sym_statement_block, 625),
     (mozjs_sym_parenthesized_expression, 579), (mozjs_sym_expression, 946),
     (mozjs_sym_primary_expression, 584), (mozjs_sym_yield_expression, 638),
     (mozjs_sym_object, 645), (mozjs_sym_object_pattern, 1866),
     (mozjs_sym_array, 645), (mozjs_sym_array_pattern, 1866),
     (mozjs_sym_jsx_element, 638), (mozjs_sym_jsx_opening_element, 1152),
     (mozjs_sym_jsx_self_closing_element, 638), (mozjs_sym_class, 645),
     (mozjs_sym_function_expression, 645), (mozjs_sym_generator_function, 645),
     (mozjs_sym_arrow_function, 645), (mozjs_sym_call_expression, 645),
     (mozjs_sym_new_expression, 587), (mozjs_sym_await_expression, 638),
     (mozjs_sym_member_expression, 579), (mozjs_sym_subscript_expression, 579),
     (mozjs_sym_assignment_expression, 638), (mozjs_sym__augmented_assignment_lhs, 1148),
     (mozjs_sym_augmented_assignment_expression, 638), (mozjs_sym__destructuring_pattern, 1866),
     (mozjs_sym_ternary_expression, 638), (mozjs_sym_binary_expression, 638),
     (mozjs_sym_unary_expression, 638), (mozjs_sym_update_expression, 638),
     (mozjs_sym_string, 645), (mozjs_sym_template_string, 645),
     (mozjs_sym_regex, 645), (mozjs_sym_meta_property, 645),
     (mozjs_sym_decorator, 1112), (mozjs_sym_formal_parameters, 1788),
     (mozjs_aux_sym_export_statement_repeat1, 1395), (mozjs_sym_identifier, 587),
     (mozjs_anon_sym_export, 589), (mozjs_anon_sym_LBRACE, 998),
     (mozjs_anon_sym_import, 390), (mozjs_anon_sym_let, 589),
     (mozjs_anon_sym_await, 591), (mozjs_anon_sym_LPAREN, 657),
     (mozjs_anon_sym_yield, 593), (mozjs_anon_sym_LBRACK, 683),
     (mozjs_anon_sym_LT, 827), (mozjs_anon_sym_DQUOTE, 407),
     (mozjs_anon_sym_SQUOTE, 409), (mozjs_anon_sym_class, 411),
     (mozjs_anon_sym_async, 597), (mozjs_anon_sym_function, 415),
     (mozjs_anon_sym_new, 601), (mozjs_anon_sym_PLUS, 609),
     (mozjs_anon_sym_DASH, 609), (mozjs_anon_sym_SLASH, 685),
     (mozjs_anon_sym_BANG, 611), (mozjs_anon_sym_TILDE, 611),
     (mozjs_anon_sym_typeof, 609), (mozjs_anon_sym_void, 609),
     (mozjs_anon_sym_delete, 609), (mozjs_anon_sym_PLUS_PLUS, 687),
     (mozjs_anon_sym_DASH_DASH, 687), (mozjs_sym_comment, 5),
     (mozjs_anon_sym_BQUOTE, 669), (mozjs_sym_number, 437),
     (mozjs_sym_private_property_identifier, 616), (mozjs_sym_this, 441),
     (mozjs_sym_super, 441), (mozjs_sym_true, 441),
     (mozjs_sym_false, 441), (mozjs_sym_null, 441),
     (mozjs_sym_undefined, 618), (mozjs_anon_sym_AT, 93),
     (mozjs_anon_sym_static, 589), (mozjs_anon_sym_get, 589),
     (mozjs_anon_sym_set, 589), (mozjs_sym_html_comment, 5)]"

definition mozjs_parse_row_205 :: "(TSSymbol \<times> nat) list" where
  "mozjs_parse_row_205 =
    [(mozjs_sym_import, 1340), (mozjs_sym_statement_block, 644),
     (mozjs_sym_parenthesized_expression, 579), (mozjs_sym_expression, 960),
     (mozjs_sym_primary_expression, 584), (mozjs_sym_yield_expression, 638),
     (mozjs_sym_object, 645), (mozjs_sym_object_pattern, 1866),
     (mozjs_sym_array, 645), (mozjs_sym_array_pattern, 1866),
     (mozjs_sym_jsx_element, 638), (mozjs_sym_jsx_opening_element, 1152),
     (mozjs_sym_jsx_self_closing_element, 638), (mozjs_sym_class, 645),
     (mozjs_sym_function_expression, 645), (mozjs_sym_generator_function, 645),
     (mozjs_sym_arrow_function, 645), (mozjs_sym_call_expression, 645),
     (mozjs_sym_new_expression, 587), (mozjs_sym_await_expression, 638),
     (mozjs_sym_member_expression, 579), (mozjs_sym_subscript_expression, 579),
     (mozjs_sym_assignment_expression, 638), (mozjs_sym__augmented_assignment_lhs, 1148),
     (mozjs_sym_augmented_assignment_expression, 638), (mozjs_sym__destructuring_pattern, 1866),
     (mozjs_sym_ternary_expression, 638), (mozjs_sym_binary_expression, 638),
     (mozjs_sym_unary_expression, 638), (mozjs_sym_update_expression, 638),
     (mozjs_sym_string, 645), (mozjs_sym_template_string, 645),
     (mozjs_sym_regex, 645), (mozjs_sym_meta_property, 645),
     (mozjs_sym_decorator, 1112), (mozjs_sym_formal_parameters, 1788),
     (mozjs_aux_sym_export_statement_repeat1, 1395), (mozjs_sym_identifier, 587),
     (mozjs_anon_sym_export, 589), (mozjs_anon_sym_LBRACE, 998),
     (mozjs_anon_sym_import, 390), (mozjs_anon_sym_let, 589),
     (mozjs_anon_sym_await, 591), (mozjs_anon_sym_LPAREN, 657),
     (mozjs_anon_sym_yield, 593), (mozjs_anon_sym_LBRACK, 683),
     (mozjs_anon_sym_LT, 827), (mozjs_anon_sym_DQUOTE, 407),
     (mozjs_anon_sym_SQUOTE, 409), (mozjs_anon_sym_class, 411),
     (mozjs_anon_sym_async, 597), (mozjs_anon_sym_function, 415),
     (mozjs_anon_sym_new, 601), (mozjs_anon_sym_PLUS, 609),
     (mozjs_anon_sym_DASH, 609), (mozjs_anon_sym_SLASH, 685),
     (mozjs_anon_sym_BANG, 611), (mozjs_anon_sym_TILDE, 611),
     (mozjs_anon_sym_typeof, 609), (mozjs_anon_sym_void, 609),
     (mozjs_anon_sym_delete, 609), (mozjs_anon_sym_PLUS_PLUS, 687),
     (mozjs_anon_sym_DASH_DASH, 687), (mozjs_sym_comment, 5),
     (mozjs_anon_sym_BQUOTE, 669), (mozjs_sym_number, 437),
     (mozjs_sym_private_property_identifier, 616), (mozjs_sym_this, 441),
     (mozjs_sym_super, 441), (mozjs_sym_true, 441),
     (mozjs_sym_false, 441), (mozjs_sym_null, 441),
     (mozjs_sym_undefined, 618), (mozjs_anon_sym_AT, 93),
     (mozjs_anon_sym_static, 589), (mozjs_anon_sym_get, 589),
     (mozjs_anon_sym_set, 589), (mozjs_sym_html_comment, 5)]"

definition mozjs_parse_row_206 :: "(TSSymbol \<times> nat) list" where
  "mozjs_parse_row_206 =
    [(mozjs_sym_import, 1340), (mozjs_sym_statement_block, 632),
     (mozjs_sym_parenthesized_expression, 579), (mozjs_sym_expression, 961),
     (mozjs_sym_primary_expression, 584), (mozjs_sym_yield_expression, 638),
     (mozjs_sym_object, 645), (mozjs_sym_object_pattern, 1866),
     (mozjs_sym_array, 645), (mozjs_sym_array_pattern, 1866),
     (mozjs_sym_jsx_element, 638), (mozjs_sym_jsx_opening_element, 1152),
     (mozjs_sym_jsx_self_closing_element, 638), (mozjs_sym_class, 645),
     (mozjs_sym_function_expression, 645), (mozjs_sym_generator_function, 645),
     (mozjs_sym_arrow_function, 645), (mozjs_sym_call_expression, 645),
     (mozjs_sym_new_expression, 587), (mozjs_sym_await_expression, 638),
     (mozjs_sym_member_expression, 579), (mozjs_sym_subscript_expression, 579),
     (mozjs_sym_assignment_expression, 638), (mozjs_sym__augmented_assignment_lhs, 1148),
     (mozjs_sym_augmented_assignment_expression, 638), (mozjs_sym__destructuring_pattern, 1866),
     (mozjs_sym_ternary_expression, 638), (mozjs_sym_binary_expression, 638),
     (mozjs_sym_unary_expression, 638), (mozjs_sym_update_expression, 638),
     (mozjs_sym_string, 645), (mozjs_sym_template_string, 645),
     (mozjs_sym_regex, 645), (mozjs_sym_meta_property, 645),
     (mozjs_sym_decorator, 1112), (mozjs_sym_formal_parameters, 1788),
     (mozjs_aux_sym_export_statement_repeat1, 1395), (mozjs_sym_identifier, 587),
     (mozjs_anon_sym_export, 589), (mozjs_anon_sym_LBRACE, 998),
     (mozjs_anon_sym_import, 390), (mozjs_anon_sym_let, 589),
     (mozjs_anon_sym_await, 591), (mozjs_anon_sym_LPAREN, 657),
     (mozjs_anon_sym_yield, 593), (mozjs_anon_sym_LBRACK, 683),
     (mozjs_anon_sym_LT, 827), (mozjs_anon_sym_DQUOTE, 407),
     (mozjs_anon_sym_SQUOTE, 409), (mozjs_anon_sym_class, 411),
     (mozjs_anon_sym_async, 597), (mozjs_anon_sym_function, 415),
     (mozjs_anon_sym_new, 601), (mozjs_anon_sym_PLUS, 609),
     (mozjs_anon_sym_DASH, 609), (mozjs_anon_sym_SLASH, 685),
     (mozjs_anon_sym_BANG, 611), (mozjs_anon_sym_TILDE, 611),
     (mozjs_anon_sym_typeof, 609), (mozjs_anon_sym_void, 609),
     (mozjs_anon_sym_delete, 609), (mozjs_anon_sym_PLUS_PLUS, 687),
     (mozjs_anon_sym_DASH_DASH, 687), (mozjs_sym_comment, 5),
     (mozjs_anon_sym_BQUOTE, 669), (mozjs_sym_number, 437),
     (mozjs_sym_private_property_identifier, 616), (mozjs_sym_this, 441),
     (mozjs_sym_super, 441), (mozjs_sym_true, 441),
     (mozjs_sym_false, 441), (mozjs_sym_null, 441),
     (mozjs_sym_undefined, 618), (mozjs_anon_sym_AT, 93),
     (mozjs_anon_sym_static, 589), (mozjs_anon_sym_get, 589),
     (mozjs_anon_sym_set, 589), (mozjs_sym_html_comment, 5)]"

definition mozjs_parse_row_207 :: "(TSSymbol \<times> nat) list" where
  "mozjs_parse_row_207 =
    [(mozjs_sym_import, 1340), (mozjs_sym_statement_block, 637),
     (mozjs_sym_parenthesized_expression, 579), (mozjs_sym_expression, 892),
     (mozjs_sym_primary_expression, 584), (mozjs_sym_yield_expression, 638),
     (mozjs_sym_object, 645), (mozjs_sym_object_pattern, 1866),
     (mozjs_sym_array, 645), (mozjs_sym_array_pattern, 1866),
     (mozjs_sym_jsx_element, 638), (mozjs_sym_jsx_opening_element, 1152),
     (mozjs_sym_jsx_self_closing_element, 638), (mozjs_sym_class, 645),
     (mozjs_sym_function_expression, 645), (mozjs_sym_generator_function, 645),
     (mozjs_sym_arrow_function, 645), (mozjs_sym_call_expression, 645),
     (mozjs_sym_new_expression, 587), (mozjs_sym_await_expression, 638),
     (mozjs_sym_member_expression, 579), (mozjs_sym_subscript_expression, 579),
     (mozjs_sym_assignment_expression, 638), (mozjs_sym__augmented_assignment_lhs, 1148),
     (mozjs_sym_augmented_assignment_expression, 638), (mozjs_sym__destructuring_pattern, 1866),
     (mozjs_sym_ternary_expression, 638), (mozjs_sym_binary_expression, 638),
     (mozjs_sym_unary_expression, 638), (mozjs_sym_update_expression, 638),
     (mozjs_sym_string, 645), (mozjs_sym_template_string, 645),
     (mozjs_sym_regex, 645), (mozjs_sym_meta_property, 645),
     (mozjs_sym_decorator, 1112), (mozjs_sym_formal_parameters, 1788),
     (mozjs_aux_sym_export_statement_repeat1, 1395), (mozjs_sym_identifier, 587),
     (mozjs_anon_sym_export, 589), (mozjs_anon_sym_LBRACE, 998),
     (mozjs_anon_sym_import, 390), (mozjs_anon_sym_let, 589),
     (mozjs_anon_sym_await, 591), (mozjs_anon_sym_LPAREN, 657),
     (mozjs_anon_sym_yield, 593), (mozjs_anon_sym_LBRACK, 683),
     (mozjs_anon_sym_LT, 827), (mozjs_anon_sym_DQUOTE, 407),
     (mozjs_anon_sym_SQUOTE, 409), (mozjs_anon_sym_class, 411),
     (mozjs_anon_sym_async, 597), (mozjs_anon_sym_function, 415),
     (mozjs_anon_sym_new, 601), (mozjs_anon_sym_PLUS, 609),
     (mozjs_anon_sym_DASH, 609), (mozjs_anon_sym_SLASH, 685),
     (mozjs_anon_sym_BANG, 611), (mozjs_anon_sym_TILDE, 611),
     (mozjs_anon_sym_typeof, 609), (mozjs_anon_sym_void, 609),
     (mozjs_anon_sym_delete, 609), (mozjs_anon_sym_PLUS_PLUS, 687),
     (mozjs_anon_sym_DASH_DASH, 687), (mozjs_sym_comment, 5),
     (mozjs_anon_sym_BQUOTE, 669), (mozjs_sym_number, 437),
     (mozjs_sym_private_property_identifier, 616), (mozjs_sym_this, 441),
     (mozjs_sym_super, 441), (mozjs_sym_true, 441),
     (mozjs_sym_false, 441), (mozjs_sym_null, 441),
     (mozjs_sym_undefined, 618), (mozjs_anon_sym_AT, 93),
     (mozjs_anon_sym_static, 589), (mozjs_anon_sym_get, 589),
     (mozjs_anon_sym_set, 589), (mozjs_sym_html_comment, 5)]"

definition mozjs_parse_row_208 :: "(TSSymbol \<times> nat) list" where
  "mozjs_parse_row_208 =
    [(mozjs_sym_import, 1340), (mozjs_sym_statement_block, 649),
     (mozjs_sym_parenthesized_expression, 579), (mozjs_sym_expression, 963),
     (mozjs_sym_primary_expression, 584), (mozjs_sym_yield_expression, 638),
     (mozjs_sym_object, 645), (mozjs_sym_object_pattern, 1866),
     (mozjs_sym_array, 645), (mozjs_sym_array_pattern, 1866),
     (mozjs_sym_jsx_element, 638), (mozjs_sym_jsx_opening_element, 1152),
     (mozjs_sym_jsx_self_closing_element, 638), (mozjs_sym_class, 645),
     (mozjs_sym_function_expression, 645), (mozjs_sym_generator_function, 645),
     (mozjs_sym_arrow_function, 645), (mozjs_sym_call_expression, 645),
     (mozjs_sym_new_expression, 587), (mozjs_sym_await_expression, 638),
     (mozjs_sym_member_expression, 579), (mozjs_sym_subscript_expression, 579),
     (mozjs_sym_assignment_expression, 638), (mozjs_sym__augmented_assignment_lhs, 1148),
     (mozjs_sym_augmented_assignment_expression, 638), (mozjs_sym__destructuring_pattern, 1866),
     (mozjs_sym_ternary_expression, 638), (mozjs_sym_binary_expression, 638),
     (mozjs_sym_unary_expression, 638), (mozjs_sym_update_expression, 638),
     (mozjs_sym_string, 645), (mozjs_sym_template_string, 645),
     (mozjs_sym_regex, 645), (mozjs_sym_meta_property, 645),
     (mozjs_sym_decorator, 1112), (mozjs_sym_formal_parameters, 1788),
     (mozjs_aux_sym_export_statement_repeat1, 1395), (mozjs_sym_identifier, 587),
     (mozjs_anon_sym_export, 589), (mozjs_anon_sym_LBRACE, 998),
     (mozjs_anon_sym_import, 390), (mozjs_anon_sym_let, 589),
     (mozjs_anon_sym_await, 591), (mozjs_anon_sym_LPAREN, 657),
     (mozjs_anon_sym_yield, 593), (mozjs_anon_sym_LBRACK, 683),
     (mozjs_anon_sym_LT, 827), (mozjs_anon_sym_DQUOTE, 407),
     (mozjs_anon_sym_SQUOTE, 409), (mozjs_anon_sym_class, 411),
     (mozjs_anon_sym_async, 597), (mozjs_anon_sym_function, 415),
     (mozjs_anon_sym_new, 601), (mozjs_anon_sym_PLUS, 609),
     (mozjs_anon_sym_DASH, 609), (mozjs_anon_sym_SLASH, 685),
     (mozjs_anon_sym_BANG, 611), (mozjs_anon_sym_TILDE, 611),
     (mozjs_anon_sym_typeof, 609), (mozjs_anon_sym_void, 609),
     (mozjs_anon_sym_delete, 609), (mozjs_anon_sym_PLUS_PLUS, 687),
     (mozjs_anon_sym_DASH_DASH, 687), (mozjs_sym_comment, 5),
     (mozjs_anon_sym_BQUOTE, 669), (mozjs_sym_number, 437),
     (mozjs_sym_private_property_identifier, 616), (mozjs_sym_this, 441),
     (mozjs_sym_super, 441), (mozjs_sym_true, 441),
     (mozjs_sym_false, 441), (mozjs_sym_null, 441),
     (mozjs_sym_undefined, 618), (mozjs_anon_sym_AT, 93),
     (mozjs_anon_sym_static, 589), (mozjs_anon_sym_get, 589),
     (mozjs_anon_sym_set, 589), (mozjs_sym_html_comment, 5)]"

definition mozjs_parse_row_209 :: "(TSSymbol \<times> nat) list" where
  "mozjs_parse_row_209 =
    [(mozjs_sym_import, 1340), (mozjs_sym_parenthesized_expression, 525),
     (mozjs_sym_expression, 847), (mozjs_sym_primary_expression, 584),
     (mozjs_sym_yield_expression, 638), (mozjs_sym_object, 645),
     (mozjs_sym_object_pattern, 1827), (mozjs_sym_array, 645),
     (mozjs_sym_array_pattern, 1827), (mozjs_sym_jsx_element, 638),
     (mozjs_sym_jsx_opening_element, 1152), (mozjs_sym_jsx_self_closing_element, 638),
     (mozjs_sym_class, 645), (mozjs_sym_function_expression, 645),
     (mozjs_sym_generator_function, 645), (mozjs_sym_arrow_function, 645),
     (mozjs_sym_call_expression, 645), (mozjs_sym_new_expression, 587),
     (mozjs_sym_await_expression, 638), (mozjs_sym_member_expression, 525),
     (mozjs_sym_subscript_expression, 525), (mozjs_sym_assignment_expression, 638),
     (mozjs_sym__augmented_assignment_lhs, 1145), (mozjs_sym_augmented_assignment_expression,
       638),
     (mozjs_sym__destructuring_pattern, 1827), (mozjs_sym_ternary_expression, 638),
     (mozjs_sym_binary_expression, 638), (mozjs_sym_unary_expression, 638),
     (mozjs_sym_update_expression, 638), (mozjs_sym_sequence_expression, 1798),
     (mozjs_sym_string, 645), (mozjs_sym_template_string, 645),
     (mozjs_sym_regex, 645), (mozjs_sym_meta_property, 645),
     (mozjs_sym_decorator, 1112), (mozjs_sym_formal_parameters, 1777),
     (mozjs_aux_sym_export_statement_repeat1, 1395), (mozjs_sym_identifier, 384),
     (mozjs_anon_sym_export, 386), (mozjs_anon_sym_LBRACE, 388),
     (mozjs_anon_sym_import, 390), (mozjs_anon_sym_let, 386),
     (mozjs_anon_sym_await, 392), (mozjs_anon_sym_LPAREN, 657),
     (mozjs_anon_sym_yield, 397), (mozjs_anon_sym_LBRACK, 661),
     (mozjs_anon_sym_LT, 827), (mozjs_anon_sym_DQUOTE, 407),
     (mozjs_anon_sym_SQUOTE, 409), (mozjs_anon_sym_class, 411),
     (mozjs_anon_sym_async, 413), (mozjs_anon_sym_function, 415),
     (mozjs_anon_sym_new, 419), (mozjs_anon_sym_PLUS, 427),
     (mozjs_anon_sym_DASH, 427), (mozjs_anon_sym_SLASH, 665),
     (mozjs_anon_sym_BANG, 429), (mozjs_anon_sym_TILDE, 429),
     (mozjs_anon_sym_typeof, 427), (mozjs_anon_sym_void, 427),
     (mozjs_anon_sym_delete, 427), (mozjs_anon_sym_PLUS_PLUS, 667),
     (mozjs_anon_sym_DASH_DASH, 667), (mozjs_sym_comment, 5),
     (mozjs_anon_sym_BQUOTE, 669), (mozjs_sym_number, 437),
     (mozjs_sym_private_property_identifier, 439), (mozjs_sym_this, 441),
     (mozjs_sym_super, 441), (mozjs_sym_true, 441),
     (mozjs_sym_false, 441), (mozjs_sym_null, 441),
     (mozjs_sym_undefined, 443), (mozjs_anon_sym_AT, 93),
     (mozjs_anon_sym_static, 386), (mozjs_anon_sym_get, 386),
     (mozjs_anon_sym_set, 386), (mozjs_sym_html_comment, 5)]"

definition mozjs_parse_row_210 :: "(TSSymbol \<times> nat) list" where
  "mozjs_parse_row_210 =
    [(mozjs_sym_import, 1340), (mozjs_sym_parenthesized_expression, 525),
     (mozjs_sym_expression, 848), (mozjs_sym_primary_expression, 584),
     (mozjs_sym_yield_expression, 638), (mozjs_sym_object, 645),
     (mozjs_sym_object_pattern, 1827), (mozjs_sym_array, 645),
     (mozjs_sym_array_pattern, 1827), (mozjs_sym_jsx_element, 638),
     (mozjs_sym_jsx_opening_element, 1152), (mozjs_sym_jsx_self_closing_element, 638),
     (mozjs_sym_class, 645), (mozjs_sym_function_expression, 645),
     (mozjs_sym_generator_function, 645), (mozjs_sym_arrow_function, 645),
     (mozjs_sym_call_expression, 645), (mozjs_sym_new_expression, 587),
     (mozjs_sym_await_expression, 638), (mozjs_sym_member_expression, 525),
     (mozjs_sym_subscript_expression, 525), (mozjs_sym_assignment_expression, 638),
     (mozjs_sym__augmented_assignment_lhs, 1145), (mozjs_sym_augmented_assignment_expression,
       638),
     (mozjs_sym__destructuring_pattern, 1827), (mozjs_sym_ternary_expression, 638),
     (mozjs_sym_binary_expression, 638), (mozjs_sym_unary_expression, 638),
     (mozjs_sym_update_expression, 638), (mozjs_sym_sequence_expression, 1806),
     (mozjs_sym_string, 645), (mozjs_sym_template_string, 645),
     (mozjs_sym_regex, 645), (mozjs_sym_meta_property, 645),
     (mozjs_sym_decorator, 1112), (mozjs_sym_formal_parameters, 1777),
     (mozjs_aux_sym_export_statement_repeat1, 1395), (mozjs_sym_identifier, 384),
     (mozjs_anon_sym_export, 386), (mozjs_anon_sym_LBRACE, 388),
     (mozjs_anon_sym_import, 390), (mozjs_anon_sym_let, 386),
     (mozjs_anon_sym_await, 392), (mozjs_anon_sym_LPAREN, 657),
     (mozjs_anon_sym_yield, 397), (mozjs_anon_sym_LBRACK, 661),
     (mozjs_anon_sym_LT, 827), (mozjs_anon_sym_DQUOTE, 407),
     (mozjs_anon_sym_SQUOTE, 409), (mozjs_anon_sym_class, 411),
     (mozjs_anon_sym_async, 413), (mozjs_anon_sym_function, 415),
     (mozjs_anon_sym_new, 419), (mozjs_anon_sym_PLUS, 427),
     (mozjs_anon_sym_DASH, 427), (mozjs_anon_sym_SLASH, 665),
     (mozjs_anon_sym_BANG, 429), (mozjs_anon_sym_TILDE, 429),
     (mozjs_anon_sym_typeof, 427), (mozjs_anon_sym_void, 427),
     (mozjs_anon_sym_delete, 427), (mozjs_anon_sym_PLUS_PLUS, 667),
     (mozjs_anon_sym_DASH_DASH, 667), (mozjs_sym_comment, 5),
     (mozjs_anon_sym_BQUOTE, 669), (mozjs_sym_number, 437),
     (mozjs_sym_private_property_identifier, 439), (mozjs_sym_this, 441),
     (mozjs_sym_super, 441), (mozjs_sym_true, 441),
     (mozjs_sym_false, 441), (mozjs_sym_null, 441),
     (mozjs_sym_undefined, 443), (mozjs_anon_sym_AT, 93),
     (mozjs_anon_sym_static, 386), (mozjs_anon_sym_get, 386),
     (mozjs_anon_sym_set, 386), (mozjs_sym_html_comment, 5)]"

definition mozjs_parse_row_211 :: "(TSSymbol \<times> nat) list" where
  "mozjs_parse_row_211 =
    [(mozjs_sym_import, 1340), (mozjs_sym_parenthesized_expression, 525),
     (mozjs_sym_expression, 853), (mozjs_sym_primary_expression, 584),
     (mozjs_sym_yield_expression, 638), (mozjs_sym_object, 645),
     (mozjs_sym_object_pattern, 1827), (mozjs_sym_array, 645),
     (mozjs_sym_array_pattern, 1827), (mozjs_sym_jsx_element, 638),
     (mozjs_sym_jsx_opening_element, 1152), (mozjs_sym_jsx_self_closing_element, 638),
     (mozjs_sym_class, 645), (mozjs_sym_function_expression, 645),
     (mozjs_sym_generator_function, 645), (mozjs_sym_arrow_function, 645),
     (mozjs_sym_call_expression, 645), (mozjs_sym_new_expression, 587),
     (mozjs_sym_await_expression, 638), (mozjs_sym_member_expression, 525),
     (mozjs_sym_subscript_expression, 525), (mozjs_sym_assignment_expression, 638),
     (mozjs_sym__augmented_assignment_lhs, 1145), (mozjs_sym_augmented_assignment_expression,
       638),
     (mozjs_sym__destructuring_pattern, 1827), (mozjs_sym_ternary_expression, 638),
     (mozjs_sym_binary_expression, 638), (mozjs_sym_unary_expression, 638),
     (mozjs_sym_update_expression, 638), (mozjs_sym_sequence_expression, 1770),
     (mozjs_sym_string, 645), (mozjs_sym_template_string, 645),
     (mozjs_sym_regex, 645), (mozjs_sym_meta_property, 645),
     (mozjs_sym_decorator, 1112), (mozjs_sym_formal_parameters, 1777),
     (mozjs_aux_sym_export_statement_repeat1, 1395), (mozjs_sym_identifier, 384),
     (mozjs_anon_sym_export, 386), (mozjs_anon_sym_LBRACE, 388),
     (mozjs_anon_sym_import, 390), (mozjs_anon_sym_let, 386),
     (mozjs_anon_sym_await, 392), (mozjs_anon_sym_LPAREN, 657),
     (mozjs_anon_sym_yield, 397), (mozjs_anon_sym_LBRACK, 661),
     (mozjs_anon_sym_LT, 827), (mozjs_anon_sym_DQUOTE, 407),
     (mozjs_anon_sym_SQUOTE, 409), (mozjs_anon_sym_class, 411),
     (mozjs_anon_sym_async, 413), (mozjs_anon_sym_function, 415),
     (mozjs_anon_sym_new, 419), (mozjs_anon_sym_PLUS, 427),
     (mozjs_anon_sym_DASH, 427), (mozjs_anon_sym_SLASH, 665),
     (mozjs_anon_sym_BANG, 429), (mozjs_anon_sym_TILDE, 429),
     (mozjs_anon_sym_typeof, 427), (mozjs_anon_sym_void, 427),
     (mozjs_anon_sym_delete, 427), (mozjs_anon_sym_PLUS_PLUS, 667),
     (mozjs_anon_sym_DASH_DASH, 667), (mozjs_sym_comment, 5),
     (mozjs_anon_sym_BQUOTE, 669), (mozjs_sym_number, 437),
     (mozjs_sym_private_property_identifier, 439), (mozjs_sym_this, 441),
     (mozjs_sym_super, 441), (mozjs_sym_true, 441),
     (mozjs_sym_false, 441), (mozjs_sym_null, 441),
     (mozjs_sym_undefined, 443), (mozjs_anon_sym_AT, 93),
     (mozjs_anon_sym_static, 386), (mozjs_anon_sym_get, 386),
     (mozjs_anon_sym_set, 386), (mozjs_sym_html_comment, 5)]"

definition mozjs_parse_row_212 :: "(TSSymbol \<times> nat) list" where
  "mozjs_parse_row_212 =
    [(mozjs_sym_import, 1340), (mozjs_sym_parenthesized_expression, 525),
     (mozjs_sym_expression, 850), (mozjs_sym_primary_expression, 584),
     (mozjs_sym_yield_expression, 638), (mozjs_sym_object, 645),
     (mozjs_sym_object_pattern, 1827), (mozjs_sym_array, 645),
     (mozjs_sym_array_pattern, 1827), (mozjs_sym_jsx_element, 638),
     (mozjs_sym_jsx_opening_element, 1152), (mozjs_sym_jsx_self_closing_element, 638),
     (mozjs_sym_class, 645), (mozjs_sym_function_expression, 645),
     (mozjs_sym_generator_function, 645), (mozjs_sym_arrow_function, 645),
     (mozjs_sym_call_expression, 645), (mozjs_sym_new_expression, 587),
     (mozjs_sym_await_expression, 638), (mozjs_sym_member_expression, 525),
     (mozjs_sym_subscript_expression, 525), (mozjs_sym_assignment_expression, 638),
     (mozjs_sym__augmented_assignment_lhs, 1145), (mozjs_sym_augmented_assignment_expression,
       638),
     (mozjs_sym__destructuring_pattern, 1827), (mozjs_sym_ternary_expression, 638),
     (mozjs_sym_binary_expression, 638), (mozjs_sym_unary_expression, 638),
     (mozjs_sym_update_expression, 638), (mozjs_sym_sequence_expression, 1783),
     (mozjs_sym_string, 645), (mozjs_sym_template_string, 645),
     (mozjs_sym_regex, 645), (mozjs_sym_meta_property, 645),
     (mozjs_sym_decorator, 1112), (mozjs_sym_formal_parameters, 1777),
     (mozjs_aux_sym_export_statement_repeat1, 1395), (mozjs_sym_identifier, 384),
     (mozjs_anon_sym_export, 386), (mozjs_anon_sym_LBRACE, 388),
     (mozjs_anon_sym_import, 390), (mozjs_anon_sym_let, 386),
     (mozjs_anon_sym_await, 392), (mozjs_anon_sym_LPAREN, 657),
     (mozjs_anon_sym_yield, 397), (mozjs_anon_sym_LBRACK, 661),
     (mozjs_anon_sym_LT, 827), (mozjs_anon_sym_DQUOTE, 407),
     (mozjs_anon_sym_SQUOTE, 409), (mozjs_anon_sym_class, 411),
     (mozjs_anon_sym_async, 413), (mozjs_anon_sym_function, 415),
     (mozjs_anon_sym_new, 419), (mozjs_anon_sym_PLUS, 427),
     (mozjs_anon_sym_DASH, 427), (mozjs_anon_sym_SLASH, 665),
     (mozjs_anon_sym_BANG, 429), (mozjs_anon_sym_TILDE, 429),
     (mozjs_anon_sym_typeof, 427), (mozjs_anon_sym_void, 427),
     (mozjs_anon_sym_delete, 427), (mozjs_anon_sym_PLUS_PLUS, 667),
     (mozjs_anon_sym_DASH_DASH, 667), (mozjs_sym_comment, 5),
     (mozjs_anon_sym_BQUOTE, 669), (mozjs_sym_number, 437),
     (mozjs_sym_private_property_identifier, 439), (mozjs_sym_this, 441),
     (mozjs_sym_super, 441), (mozjs_sym_true, 441),
     (mozjs_sym_false, 441), (mozjs_sym_null, 441),
     (mozjs_sym_undefined, 443), (mozjs_anon_sym_AT, 93),
     (mozjs_anon_sym_static, 386), (mozjs_anon_sym_get, 386),
     (mozjs_anon_sym_set, 386), (mozjs_sym_html_comment, 5)]"

definition mozjs_parse_row_213 :: "(TSSymbol \<times> nat) list" where
  "mozjs_parse_row_213 =
    [(mozjs_sym_import, 1333), (mozjs_sym_parenthesized_expression, 546),
     (mozjs_sym_expression, 984), (mozjs_sym_primary_expression, 671),
     (mozjs_sym_yield_expression, 638), (mozjs_sym_object, 793),
     (mozjs_sym_object_pattern, 1766), (mozjs_sym_array, 793),
     (mozjs_sym_array_pattern, 1766), (mozjs_sym_jsx_element, 638),
     (mozjs_sym_jsx_opening_element, 1152), (mozjs_sym_jsx_self_closing_element, 638),
     (mozjs_sym_class, 793), (mozjs_sym_function_expression, 793),
     (mozjs_sym_generator_function, 793), (mozjs_sym_arrow_function, 793),
     (mozjs_sym_call_expression, 793), (mozjs_sym_new_expression, 682),
     (mozjs_sym_await_expression, 638), (mozjs_sym_member_expression, 546),
     (mozjs_sym_subscript_expression, 546), (mozjs_sym_assignment_expression, 638),
     (mozjs_sym__augmented_assignment_lhs, 1144), (mozjs_sym_augmented_assignment_expression,
       638),
     (mozjs_sym__destructuring_pattern, 1766), (mozjs_sym_ternary_expression, 638),
     (mozjs_sym_binary_expression, 638), (mozjs_sym_unary_expression, 638),
     (mozjs_sym_update_expression, 638), (mozjs_sym_string, 793),
     (mozjs_sym_template_string, 793), (mozjs_sym_regex, 793),
     (mozjs_sym_meta_property, 793), (mozjs_sym_decorator, 1112),
     (mozjs_sym_formal_parameters, 1812), (mozjs_aux_sym_export_statement_repeat1, 1331),
     (mozjs_sym_identifier, 1034), (mozjs_anon_sym_export, 1036),
     (mozjs_anon_sym_LBRACE, 309), (mozjs_anon_sym_import, 315),
     (mozjs_anon_sym_let, 1036), (mozjs_anon_sym_await, 1038),
     (mozjs_anon_sym_LPAREN, 37), (mozjs_anon_sym_yield, 469),
     (mozjs_anon_sym_LBRACK, 59), (mozjs_anon_sym_LT, 827),
     (mozjs_anon_sym_DOT, 1028), (mozjs_anon_sym_DQUOTE, 63),
     (mozjs_anon_sym_SQUOTE, 65), (mozjs_anon_sym_class, 336),
     (mozjs_anon_sym_async, 1040), (mozjs_anon_sym_function, 340),
     (mozjs_anon_sym_new, 565), (mozjs_anon_sym_PLUS, 483),
     (mozjs_anon_sym_DASH, 483), (mozjs_anon_sym_SLASH, 677),
     (mozjs_anon_sym_BANG, 485), (mozjs_anon_sym_TILDE, 485),
     (mozjs_anon_sym_typeof, 483), (mozjs_anon_sym_void, 483),
     (mozjs_anon_sym_delete, 483), (mozjs_anon_sym_PLUS_PLUS, 691),
     (mozjs_anon_sym_DASH_DASH, 691), (mozjs_sym_comment, 5),
     (mozjs_anon_sym_BQUOTE, 83), (mozjs_sym_number, 85),
     (mozjs_sym_private_property_identifier, 490), (mozjs_sym_this, 89),
     (mozjs_sym_super, 89), (mozjs_sym_true, 89),
     (mozjs_sym_false, 89), (mozjs_sym_null, 89),
     (mozjs_sym_undefined, 1032), (mozjs_anon_sym_AT, 93),
     (mozjs_anon_sym_static, 1036), (mozjs_anon_sym_get, 1036),
     (mozjs_anon_sym_set, 1036), (mozjs_sym_html_comment, 5)]"

definition mozjs_parse_row_214 :: "(TSSymbol \<times> nat) list" where
  "mozjs_parse_row_214 =
    [(mozjs_sym_import, 1340), (mozjs_sym_parenthesized_expression, 525),
     (mozjs_sym_expression, 882), (mozjs_sym_primary_expression, 584),
     (mozjs_sym_yield_expression, 638), (mozjs_sym_object, 645),
     (mozjs_sym_object_pattern, 1827), (mozjs_sym_array, 645),
     (mozjs_sym_array_pattern, 1827), (mozjs_sym_jsx_element, 638),
     (mozjs_sym_jsx_opening_element, 1152), (mozjs_sym_jsx_self_closing_element, 638),
     (mozjs_sym_class, 645), (mozjs_sym_function_expression, 645),
     (mozjs_sym_generator_function, 645), (mozjs_sym_arrow_function, 645),
     (mozjs_sym_call_expression, 645), (mozjs_sym_new_expression, 587),
     (mozjs_sym_await_expression, 638), (mozjs_sym_member_expression, 525),
     (mozjs_sym_subscript_expression, 525), (mozjs_sym_assignment_expression, 638),
     (mozjs_sym__augmented_assignment_lhs, 1145), (mozjs_sym_augmented_assignment_expression,
       638),
     (mozjs_sym__destructuring_pattern, 1827), (mozjs_sym_ternary_expression, 638),
     (mozjs_sym_binary_expression, 638), (mozjs_sym_unary_expression, 638),
     (mozjs_sym_update_expression, 638), (mozjs_sym_sequence_expression, 1821),
     (mozjs_sym_string, 645), (mozjs_sym_template_string, 645),
     (mozjs_sym_regex, 645), (mozjs_sym_meta_property, 645),
     (mozjs_sym_decorator, 1112), (mozjs_sym_formal_parameters, 1777),
     (mozjs_aux_sym_export_statement_repeat1, 1395), (mozjs_sym_identifier, 384),
     (mozjs_anon_sym_export, 386), (mozjs_anon_sym_LBRACE, 388),
     (mozjs_anon_sym_import, 390), (mozjs_anon_sym_let, 386),
     (mozjs_anon_sym_await, 392), (mozjs_anon_sym_LPAREN, 657),
     (mozjs_anon_sym_yield, 397), (mozjs_anon_sym_LBRACK, 661),
     (mozjs_anon_sym_LT, 827), (mozjs_anon_sym_DQUOTE, 407),
     (mozjs_anon_sym_SQUOTE, 409), (mozjs_anon_sym_class, 411),
     (mozjs_anon_sym_async, 413), (mozjs_anon_sym_function, 415),
     (mozjs_anon_sym_new, 419), (mozjs_anon_sym_PLUS, 427),
     (mozjs_anon_sym_DASH, 427), (mozjs_anon_sym_SLASH, 665),
     (mozjs_anon_sym_BANG, 429), (mozjs_anon_sym_TILDE, 429),
     (mozjs_anon_sym_typeof, 427), (mozjs_anon_sym_void, 427),
     (mozjs_anon_sym_delete, 427), (mozjs_anon_sym_PLUS_PLUS, 667),
     (mozjs_anon_sym_DASH_DASH, 667), (mozjs_sym_comment, 5),
     (mozjs_anon_sym_BQUOTE, 669), (mozjs_sym_number, 437),
     (mozjs_sym_private_property_identifier, 439), (mozjs_sym_this, 441),
     (mozjs_sym_super, 441), (mozjs_sym_true, 441),
     (mozjs_sym_false, 441), (mozjs_sym_null, 441),
     (mozjs_sym_undefined, 443), (mozjs_anon_sym_AT, 93),
     (mozjs_anon_sym_static, 386), (mozjs_anon_sym_get, 386),
     (mozjs_anon_sym_set, 386), (mozjs_sym_html_comment, 5)]"

definition mozjs_parse_row_215 :: "(TSSymbol \<times> nat) list" where
  "mozjs_parse_row_215 =
    [(mozjs_sym_import, 1340), (mozjs_sym_parenthesized_expression, 525),
     (mozjs_sym_expression, 883), (mozjs_sym_primary_expression, 584),
     (mozjs_sym_yield_expression, 638), (mozjs_sym_object, 645),
     (mozjs_sym_object_pattern, 1827), (mozjs_sym_array, 645),
     (mozjs_sym_array_pattern, 1827), (mozjs_sym_jsx_element, 638),
     (mozjs_sym_jsx_opening_element, 1152), (mozjs_sym_jsx_self_closing_element, 638),
     (mozjs_sym_class, 645), (mozjs_sym_function_expression, 645),
     (mozjs_sym_generator_function, 645), (mozjs_sym_arrow_function, 645),
     (mozjs_sym_call_expression, 645), (mozjs_sym_new_expression, 587),
     (mozjs_sym_await_expression, 638), (mozjs_sym_member_expression, 525),
     (mozjs_sym_subscript_expression, 525), (mozjs_sym_assignment_expression, 638),
     (mozjs_sym__augmented_assignment_lhs, 1145), (mozjs_sym_augmented_assignment_expression,
       638),
     (mozjs_sym__destructuring_pattern, 1827), (mozjs_sym_ternary_expression, 638),
     (mozjs_sym_binary_expression, 638), (mozjs_sym_unary_expression, 638),
     (mozjs_sym_update_expression, 638), (mozjs_sym_sequence_expression, 1767),
     (mozjs_sym_string, 645), (mozjs_sym_template_string, 645),
     (mozjs_sym_regex, 645), (mozjs_sym_meta_property, 645),
     (mozjs_sym_decorator, 1112), (mozjs_sym_formal_parameters, 1777),
     (mozjs_aux_sym_export_statement_repeat1, 1395), (mozjs_sym_identifier, 384),
     (mozjs_anon_sym_export, 386), (mozjs_anon_sym_LBRACE, 388),
     (mozjs_anon_sym_import, 390), (mozjs_anon_sym_let, 386),
     (mozjs_anon_sym_await, 392), (mozjs_anon_sym_LPAREN, 657),
     (mozjs_anon_sym_yield, 397), (mozjs_anon_sym_LBRACK, 661),
     (mozjs_anon_sym_LT, 827), (mozjs_anon_sym_DQUOTE, 407),
     (mozjs_anon_sym_SQUOTE, 409), (mozjs_anon_sym_class, 411),
     (mozjs_anon_sym_async, 413), (mozjs_anon_sym_function, 415),
     (mozjs_anon_sym_new, 419), (mozjs_anon_sym_PLUS, 427),
     (mozjs_anon_sym_DASH, 427), (mozjs_anon_sym_SLASH, 665),
     (mozjs_anon_sym_BANG, 429), (mozjs_anon_sym_TILDE, 429),
     (mozjs_anon_sym_typeof, 427), (mozjs_anon_sym_void, 427),
     (mozjs_anon_sym_delete, 427), (mozjs_anon_sym_PLUS_PLUS, 667),
     (mozjs_anon_sym_DASH_DASH, 667), (mozjs_sym_comment, 5),
     (mozjs_anon_sym_BQUOTE, 669), (mozjs_sym_number, 437),
     (mozjs_sym_private_property_identifier, 439), (mozjs_sym_this, 441),
     (mozjs_sym_super, 441), (mozjs_sym_true, 441),
     (mozjs_sym_false, 441), (mozjs_sym_null, 441),
     (mozjs_sym_undefined, 443), (mozjs_anon_sym_AT, 93),
     (mozjs_anon_sym_static, 386), (mozjs_anon_sym_get, 386),
     (mozjs_anon_sym_set, 386), (mozjs_sym_html_comment, 5)]"

definition mozjs_parse_row_216 :: "(TSSymbol \<times> nat) list" where
  "mozjs_parse_row_216 =
    [(mozjs_sym_import, 1340), (mozjs_sym_parenthesized_expression, 499),
     (mozjs_sym_expression, 985), (mozjs_sym_primary_expression, 582),
     (mozjs_sym_yield_expression, 638), (mozjs_sym_object, 645),
     (mozjs_sym_object_pattern, 1766), (mozjs_sym_array, 645),
     (mozjs_sym_array_pattern, 1766), (mozjs_sym_jsx_element, 638),
     (mozjs_sym_jsx_opening_element, 1152), (mozjs_sym_jsx_self_closing_element, 638),
     (mozjs_sym_class, 645), (mozjs_sym_function_expression, 645),
     (mozjs_sym_generator_function, 645), (mozjs_sym_arrow_function, 645),
     (mozjs_sym_call_expression, 645), (mozjs_sym_new_expression, 583),
     (mozjs_sym_await_expression, 638), (mozjs_sym_member_expression, 499),
     (mozjs_sym_subscript_expression, 499), (mozjs_sym_assignment_expression, 638),
     (mozjs_sym__augmented_assignment_lhs, 1144), (mozjs_sym_augmented_assignment_expression,
       638),
     (mozjs_sym__destructuring_pattern, 1766), (mozjs_sym_ternary_expression, 638),
     (mozjs_sym_binary_expression, 638), (mozjs_sym_unary_expression, 638),
     (mozjs_sym_update_expression, 638), (mozjs_sym_string, 645),
     (mozjs_sym_template_string, 645), (mozjs_sym_regex, 645),
     (mozjs_sym_meta_property, 645), (mozjs_sym_decorator, 1112),
     (mozjs_sym_formal_parameters, 1788), (mozjs_aux_sym_export_statement_repeat1, 1395),
     (mozjs_sym_identifier, 1042), (mozjs_anon_sym_export, 1044),
     (mozjs_anon_sym_LBRACE, 465), (mozjs_anon_sym_import, 390),
     (mozjs_anon_sym_let, 1044), (mozjs_anon_sym_await, 1046),
     (mozjs_anon_sym_LPAREN, 657), (mozjs_anon_sym_yield, 469),
     (mozjs_anon_sym_LBRACK, 683), (mozjs_anon_sym_LT, 827),
     (mozjs_anon_sym_DOT, 1006), (mozjs_anon_sym_DQUOTE, 407),
     (mozjs_anon_sym_SQUOTE, 409), (mozjs_anon_sym_class, 411),
     (mozjs_anon_sym_async, 1048), (mozjs_anon_sym_function, 415),
     (mozjs_anon_sym_new, 601), (mozjs_anon_sym_PLUS, 483),
     (mozjs_anon_sym_DASH, 483), (mozjs_anon_sym_SLASH, 685),
     (mozjs_anon_sym_BANG, 485), (mozjs_anon_sym_TILDE, 485),
     (mozjs_anon_sym_typeof, 483), (mozjs_anon_sym_void, 483),
     (mozjs_anon_sym_delete, 483), (mozjs_anon_sym_PLUS_PLUS, 691),
     (mozjs_anon_sym_DASH_DASH, 691), (mozjs_sym_comment, 5),
     (mozjs_anon_sym_BQUOTE, 669), (mozjs_sym_number, 437),
     (mozjs_sym_private_property_identifier, 490), (mozjs_sym_this, 441),
     (mozjs_sym_super, 441), (mozjs_sym_true, 441),
     (mozjs_sym_false, 441), (mozjs_sym_null, 441),
     (mozjs_sym_undefined, 492), (mozjs_anon_sym_AT, 93),
     (mozjs_anon_sym_static, 1044), (mozjs_anon_sym_get, 1044),
     (mozjs_anon_sym_set, 1044), (mozjs_sym_html_comment, 5)]"

definition mozjs_parse_row_217 :: "(TSSymbol \<times> nat) list" where
  "mozjs_parse_row_217 =
    [(mozjs_sym_import, 1340), (mozjs_sym_statement_block, 644),
     (mozjs_sym_parenthesized_expression, 525), (mozjs_sym_expression, 676),
     (mozjs_sym_primary_expression, 584), (mozjs_sym_yield_expression, 638),
     (mozjs_sym_object, 645), (mozjs_sym_object_pattern, 1827),
     (mozjs_sym_array, 645), (mozjs_sym_array_pattern, 1827),
     (mozjs_sym_jsx_element, 638), (mozjs_sym_jsx_opening_element, 1152),
     (mozjs_sym_jsx_self_closing_element, 638), (mozjs_sym_class, 645),
     (mozjs_sym_function_expression, 645), (mozjs_sym_generator_function, 645),
     (mozjs_sym_arrow_function, 645), (mozjs_sym_call_expression, 645),
     (mozjs_sym_new_expression, 587), (mozjs_sym_await_expression, 638),
     (mozjs_sym_member_expression, 525), (mozjs_sym_subscript_expression, 525),
     (mozjs_sym_assignment_expression, 638), (mozjs_sym__augmented_assignment_lhs, 1145),
     (mozjs_sym_augmented_assignment_expression, 638), (mozjs_sym__destructuring_pattern, 1827),
     (mozjs_sym_ternary_expression, 638), (mozjs_sym_binary_expression, 638),
     (mozjs_sym_unary_expression, 638), (mozjs_sym_update_expression, 638),
     (mozjs_sym_string, 645), (mozjs_sym_template_string, 645),
     (mozjs_sym_regex, 645), (mozjs_sym_meta_property, 645),
     (mozjs_sym_decorator, 1112), (mozjs_sym_formal_parameters, 1777),
     (mozjs_aux_sym_export_statement_repeat1, 1395), (mozjs_sym_identifier, 384),
     (mozjs_anon_sym_export, 386), (mozjs_anon_sym_LBRACE, 1010),
     (mozjs_anon_sym_import, 390), (mozjs_anon_sym_let, 386),
     (mozjs_anon_sym_await, 392), (mozjs_anon_sym_LPAREN, 657),
     (mozjs_anon_sym_yield, 397), (mozjs_anon_sym_LBRACK, 661),
     (mozjs_anon_sym_LT, 827), (mozjs_anon_sym_DQUOTE, 407),
     (mozjs_anon_sym_SQUOTE, 409), (mozjs_anon_sym_class, 411),
     (mozjs_anon_sym_async, 413), (mozjs_anon_sym_function, 415),
     (mozjs_anon_sym_new, 419), (mozjs_anon_sym_PLUS, 427),
     (mozjs_anon_sym_DASH, 427), (mozjs_anon_sym_SLASH, 665),
     (mozjs_anon_sym_BANG, 429), (mozjs_anon_sym_TILDE, 429),
     (mozjs_anon_sym_typeof, 427), (mozjs_anon_sym_void, 427),
     (mozjs_anon_sym_delete, 427), (mozjs_anon_sym_PLUS_PLUS, 667),
     (mozjs_anon_sym_DASH_DASH, 667), (mozjs_sym_comment, 5),
     (mozjs_anon_sym_BQUOTE, 669), (mozjs_sym_number, 437),
     (mozjs_sym_private_property_identifier, 439), (mozjs_sym_this, 441),
     (mozjs_sym_super, 441), (mozjs_sym_true, 441),
     (mozjs_sym_false, 441), (mozjs_sym_null, 441),
     (mozjs_sym_undefined, 443), (mozjs_anon_sym_AT, 93),
     (mozjs_anon_sym_static, 386), (mozjs_anon_sym_get, 386),
     (mozjs_anon_sym_set, 386), (mozjs_sym_html_comment, 5)]"

definition mozjs_parse_row_218 :: "(TSSymbol \<times> nat) list" where
  "mozjs_parse_row_218 =
    [(mozjs_sym_import, 1340), (mozjs_sym_statement_block, 625),
     (mozjs_sym_parenthesized_expression, 525), (mozjs_sym_expression, 678),
     (mozjs_sym_primary_expression, 584), (mozjs_sym_yield_expression, 638),
     (mozjs_sym_object, 645), (mozjs_sym_object_pattern, 1827),
     (mozjs_sym_array, 645), (mozjs_sym_array_pattern, 1827),
     (mozjs_sym_jsx_element, 638), (mozjs_sym_jsx_opening_element, 1152),
     (mozjs_sym_jsx_self_closing_element, 638), (mozjs_sym_class, 645),
     (mozjs_sym_function_expression, 645), (mozjs_sym_generator_function, 645),
     (mozjs_sym_arrow_function, 645), (mozjs_sym_call_expression, 645),
     (mozjs_sym_new_expression, 587), (mozjs_sym_await_expression, 638),
     (mozjs_sym_member_expression, 525), (mozjs_sym_subscript_expression, 525),
     (mozjs_sym_assignment_expression, 638), (mozjs_sym__augmented_assignment_lhs, 1145),
     (mozjs_sym_augmented_assignment_expression, 638), (mozjs_sym__destructuring_pattern, 1827),
     (mozjs_sym_ternary_expression, 638), (mozjs_sym_binary_expression, 638),
     (mozjs_sym_unary_expression, 638), (mozjs_sym_update_expression, 638),
     (mozjs_sym_string, 645), (mozjs_sym_template_string, 645),
     (mozjs_sym_regex, 645), (mozjs_sym_meta_property, 645),
     (mozjs_sym_decorator, 1112), (mozjs_sym_formal_parameters, 1777),
     (mozjs_aux_sym_export_statement_repeat1, 1395), (mozjs_sym_identifier, 384),
     (mozjs_anon_sym_export, 386), (mozjs_anon_sym_LBRACE, 1010),
     (mozjs_anon_sym_import, 390), (mozjs_anon_sym_let, 386),
     (mozjs_anon_sym_await, 392), (mozjs_anon_sym_LPAREN, 657),
     (mozjs_anon_sym_yield, 397), (mozjs_anon_sym_LBRACK, 661),
     (mozjs_anon_sym_LT, 827), (mozjs_anon_sym_DQUOTE, 407),
     (mozjs_anon_sym_SQUOTE, 409), (mozjs_anon_sym_class, 411),
     (mozjs_anon_sym_async, 413), (mozjs_anon_sym_function, 415),
     (mozjs_anon_sym_new, 419), (mozjs_anon_sym_PLUS, 427),
     (mozjs_anon_sym_DASH, 427), (mozjs_anon_sym_SLASH, 665),
     (mozjs_anon_sym_BANG, 429), (mozjs_anon_sym_TILDE, 429),
     (mozjs_anon_sym_typeof, 427), (mozjs_anon_sym_void, 427),
     (mozjs_anon_sym_delete, 427), (mozjs_anon_sym_PLUS_PLUS, 667),
     (mozjs_anon_sym_DASH_DASH, 667), (mozjs_sym_comment, 5),
     (mozjs_anon_sym_BQUOTE, 669), (mozjs_sym_number, 437),
     (mozjs_sym_private_property_identifier, 439), (mozjs_sym_this, 441),
     (mozjs_sym_super, 441), (mozjs_sym_true, 441),
     (mozjs_sym_false, 441), (mozjs_sym_null, 441),
     (mozjs_sym_undefined, 443), (mozjs_anon_sym_AT, 93),
     (mozjs_anon_sym_static, 386), (mozjs_anon_sym_get, 386),
     (mozjs_anon_sym_set, 386), (mozjs_sym_html_comment, 5)]"

definition mozjs_parse_row_219 :: "(TSSymbol \<times> nat) list" where
  "mozjs_parse_row_219 =
    [(mozjs_sym_import, 1340), (mozjs_sym_parenthesized_expression, 499),
     (mozjs_sym_expression, 974), (mozjs_sym_primary_expression, 584),
     (mozjs_sym_yield_expression, 638), (mozjs_sym_object, 645),
     (mozjs_sym_object_pattern, 1766), (mozjs_sym_array, 645),
     (mozjs_sym_array_pattern, 1766), (mozjs_sym_jsx_element, 638),
     (mozjs_sym_jsx_opening_element, 1152), (mozjs_sym_jsx_self_closing_element, 638),
     (mozjs_sym_class, 645), (mozjs_sym_function_expression, 645),
     (mozjs_sym_generator_function, 645), (mozjs_sym_arrow_function, 645),
     (mozjs_sym_call_expression, 645), (mozjs_sym_new_expression, 587),
     (mozjs_sym_await_expression, 638), (mozjs_sym_member_expression, 499),
     (mozjs_sym_subscript_expression, 499), (mozjs_sym_assignment_expression, 638),
     (mozjs_sym__augmented_assignment_lhs, 1144), (mozjs_sym_augmented_assignment_expression,
       638),
     (mozjs_sym__destructuring_pattern, 1766), (mozjs_sym_ternary_expression, 638),
     (mozjs_sym_binary_expression, 638), (mozjs_sym_unary_expression, 638),
     (mozjs_sym_update_expression, 638), (mozjs_sym_string, 645),
     (mozjs_sym_template_string, 645), (mozjs_sym_regex, 645),
     (mozjs_sym_meta_property, 645), (mozjs_sym_decorator, 1112),
     (mozjs_sym_formal_parameters, 1828), (mozjs_aux_sym_export_statement_repeat1, 1395),
     (mozjs_sym_identifier, 461), (mozjs_anon_sym_export, 463),
     (mozjs_anon_sym_LBRACE, 465), (mozjs_anon_sym_import, 390),
     (mozjs_anon_sym_let, 463), (mozjs_anon_sym_await, 467),
     (mozjs_anon_sym_LPAREN, 657), (mozjs_anon_sym_yield, 469),
     (mozjs_anon_sym_LBRACK, 683), (mozjs_anon_sym_LT, 827),
     (mozjs_anon_sym_DQUOTE, 407), (mozjs_anon_sym_SQUOTE, 409),
     (mozjs_anon_sym_class, 411), (mozjs_anon_sym_async, 476),
     (mozjs_anon_sym_function, 415), (mozjs_anon_sym_new, 478),
     (mozjs_anon_sym_PLUS, 483), (mozjs_anon_sym_DASH, 483),
     (mozjs_anon_sym_SLASH, 665), (mozjs_anon_sym_BANG, 485),
     (mozjs_anon_sym_TILDE, 485), (mozjs_anon_sym_typeof, 483),
     (mozjs_anon_sym_void, 483), (mozjs_anon_sym_delete, 483),
     (mozjs_anon_sym_PLUS_PLUS, 691), (mozjs_anon_sym_DASH_DASH, 691),
     (mozjs_sym_comment, 5), (mozjs_anon_sym_BQUOTE, 669),
     (mozjs_sym_number, 437), (mozjs_sym_private_property_identifier, 490),
     (mozjs_sym_this, 441), (mozjs_sym_super, 441),
     (mozjs_sym_true, 441), (mozjs_sym_false, 441),
     (mozjs_sym_null, 441), (mozjs_sym_undefined, 492),
     (mozjs_anon_sym_AT, 93), (mozjs_anon_sym_static, 463),
     (mozjs_anon_sym_get, 463), (mozjs_anon_sym_set, 463),
     (mozjs_sym_html_comment, 5)]"

definition mozjs_parse_row_220 :: "(TSSymbol \<times> nat) list" where
  "mozjs_parse_row_220 =
    [(mozjs_sym_import, 1340), (mozjs_sym_parenthesized_expression, 525),
     (mozjs_sym_expression, 909), (mozjs_sym_primary_expression, 584),
     (mozjs_sym_yield_expression, 638), (mozjs_sym_object, 645),
     (mozjs_sym_object_pattern, 1827), (mozjs_sym_array, 645),
     (mozjs_sym_array_pattern, 1827), (mozjs_sym_jsx_element, 638),
     (mozjs_sym_jsx_opening_element, 1152), (mozjs_sym_jsx_self_closing_element, 638),
     (mozjs_sym_class, 645), (mozjs_sym_function_expression, 645),
     (mozjs_sym_generator_function, 645), (mozjs_sym_arrow_function, 645),
     (mozjs_sym_call_expression, 645), (mozjs_sym_new_expression, 587),
     (mozjs_sym_await_expression, 638), (mozjs_sym_member_expression, 525),
     (mozjs_sym_subscript_expression, 525), (mozjs_sym_assignment_expression, 638),
     (mozjs_sym__augmented_assignment_lhs, 1145), (mozjs_sym_augmented_assignment_expression,
       638),
     (mozjs_sym__destructuring_pattern, 1827), (mozjs_sym_ternary_expression, 638),
     (mozjs_sym_binary_expression, 638), (mozjs_sym_unary_expression, 638),
     (mozjs_sym_update_expression, 638), (mozjs_sym_string, 645),
     (mozjs_sym_template_string, 645), (mozjs_sym_regex, 645),
     (mozjs_sym_meta_property, 645), (mozjs_sym_decorator, 1112),
     (mozjs_sym_formal_parameters, 1777), (mozjs_aux_sym_export_statement_repeat1, 1395),
     (mozjs_sym_identifier, 384), (mozjs_anon_sym_export, 386),
     (mozjs_anon_sym_LBRACE, 388), (mozjs_anon_sym_import, 390),
     (mozjs_anon_sym_let, 386), (mozjs_anon_sym_await, 392),
     (mozjs_anon_sym_LPAREN, 657), (mozjs_anon_sym_yield, 397),
     (mozjs_anon_sym_LBRACK, 661), (mozjs_anon_sym_LT, 827),
     (mozjs_anon_sym_DQUOTE, 407), (mozjs_anon_sym_SQUOTE, 409),
     (mozjs_anon_sym_class, 411), (mozjs_anon_sym_async, 413),
     (mozjs_anon_sym_function, 415), (mozjs_anon_sym_new, 419),
     (mozjs_anon_sym_PLUS, 427), (mozjs_anon_sym_DASH, 427),
     (mozjs_anon_sym_SLASH, 665), (mozjs_anon_sym_BANG, 429),
     (mozjs_anon_sym_TILDE, 429), (mozjs_anon_sym_typeof, 427),
     (mozjs_anon_sym_void, 427), (mozjs_anon_sym_delete, 427),
     (mozjs_anon_sym_PLUS_PLUS, 667), (mozjs_anon_sym_DASH_DASH, 667),
     (mozjs_sym_comment, 5), (mozjs_anon_sym_BQUOTE, 669),
     (mozjs_sym_number, 437), (mozjs_sym_private_property_identifier, 439),
     (mozjs_sym_this, 441), (mozjs_sym_super, 441),
     (mozjs_sym_true, 441), (mozjs_sym_false, 441),
     (mozjs_sym_null, 441), (mozjs_sym_undefined, 443),
     (mozjs_anon_sym_AT, 93), (mozjs_anon_sym_static, 386),
     (mozjs_anon_sym_get, 386), (mozjs_anon_sym_set, 386),
     (mozjs_sym_html_comment, 5)]"

definition mozjs_parse_row_221 :: "(TSSymbol \<times> nat) list" where
  "mozjs_parse_row_221 =
    [(mozjs_sym_import, 1340), (mozjs_sym_parenthesized_expression, 525),
     (mozjs_sym_expression, 910), (mozjs_sym_primary_expression, 584),
     (mozjs_sym_yield_expression, 638), (mozjs_sym_object, 645),
     (mozjs_sym_object_pattern, 1827), (mozjs_sym_array, 645),
     (mozjs_sym_array_pattern, 1827), (mozjs_sym_jsx_element, 638),
     (mozjs_sym_jsx_opening_element, 1152), (mozjs_sym_jsx_self_closing_element, 638),
     (mozjs_sym_class, 645), (mozjs_sym_function_expression, 645),
     (mozjs_sym_generator_function, 645), (mozjs_sym_arrow_function, 645),
     (mozjs_sym_call_expression, 645), (mozjs_sym_new_expression, 587),
     (mozjs_sym_await_expression, 638), (mozjs_sym_member_expression, 525),
     (mozjs_sym_subscript_expression, 525), (mozjs_sym_assignment_expression, 638),
     (mozjs_sym__augmented_assignment_lhs, 1145), (mozjs_sym_augmented_assignment_expression,
       638),
     (mozjs_sym__destructuring_pattern, 1827), (mozjs_sym_ternary_expression, 638),
     (mozjs_sym_binary_expression, 638), (mozjs_sym_unary_expression, 638),
     (mozjs_sym_update_expression, 638), (mozjs_sym_string, 645),
     (mozjs_sym_template_string, 645), (mozjs_sym_regex, 645),
     (mozjs_sym_meta_property, 645), (mozjs_sym_decorator, 1112),
     (mozjs_sym_formal_parameters, 1777), (mozjs_aux_sym_export_statement_repeat1, 1395),
     (mozjs_sym_identifier, 384), (mozjs_anon_sym_export, 386),
     (mozjs_anon_sym_LBRACE, 388), (mozjs_anon_sym_import, 390),
     (mozjs_anon_sym_let, 386), (mozjs_anon_sym_await, 392),
     (mozjs_anon_sym_LPAREN, 657), (mozjs_anon_sym_yield, 397),
     (mozjs_anon_sym_LBRACK, 661), (mozjs_anon_sym_LT, 827),
     (mozjs_anon_sym_DQUOTE, 407), (mozjs_anon_sym_SQUOTE, 409),
     (mozjs_anon_sym_class, 411), (mozjs_anon_sym_async, 413),
     (mozjs_anon_sym_function, 415), (mozjs_anon_sym_new, 419),
     (mozjs_anon_sym_PLUS, 427), (mozjs_anon_sym_DASH, 427),
     (mozjs_anon_sym_SLASH, 665), (mozjs_anon_sym_BANG, 429),
     (mozjs_anon_sym_TILDE, 429), (mozjs_anon_sym_typeof, 427),
     (mozjs_anon_sym_void, 427), (mozjs_anon_sym_delete, 427),
     (mozjs_anon_sym_PLUS_PLUS, 667), (mozjs_anon_sym_DASH_DASH, 667),
     (mozjs_sym_comment, 5), (mozjs_anon_sym_BQUOTE, 669),
     (mozjs_sym_number, 437), (mozjs_sym_private_property_identifier, 439),
     (mozjs_sym_this, 441), (mozjs_sym_super, 441),
     (mozjs_sym_true, 441), (mozjs_sym_false, 441),
     (mozjs_sym_null, 441), (mozjs_sym_undefined, 443),
     (mozjs_anon_sym_AT, 93), (mozjs_anon_sym_static, 386),
     (mozjs_anon_sym_get, 386), (mozjs_anon_sym_set, 386),
     (mozjs_sym_html_comment, 5)]"

definition mozjs_parse_row_222 :: "(TSSymbol \<times> nat) list" where
  "mozjs_parse_row_222 =
    [(mozjs_sym_import, 1340), (mozjs_sym_parenthesized_expression, 499),
     (mozjs_sym_expression, 985), (mozjs_sym_primary_expression, 584),
     (mozjs_sym_yield_expression, 638), (mozjs_sym_object, 645),
     (mozjs_sym_object_pattern, 1310), (mozjs_sym_array, 645),
     (mozjs_sym_array_pattern, 1310), (mozjs_sym_jsx_element, 638),
     (mozjs_sym_jsx_opening_element, 1152), (mozjs_sym_jsx_self_closing_element, 638),
     (mozjs_sym_class, 645), (mozjs_sym_function_expression, 645),
     (mozjs_sym_generator_function, 645), (mozjs_sym_arrow_function, 645),
     (mozjs_sym_call_expression, 645), (mozjs_sym_new_expression, 587),
     (mozjs_sym_await_expression, 638), (mozjs_sym_member_expression, 558),
     (mozjs_sym_subscript_expression, 558), (mozjs_sym_assignment_expression, 638),
     (mozjs_sym__augmented_assignment_lhs, 1144), (mozjs_sym_augmented_assignment_expression,
       638),
     (mozjs_sym__destructuring_pattern, 1310), (mozjs_sym_ternary_expression, 638),
     (mozjs_sym_binary_expression, 638), (mozjs_sym_unary_expression, 638),
     (mozjs_sym_update_expression, 638), (mozjs_sym_string, 645),
     (mozjs_sym_template_string, 645), (mozjs_sym_regex, 645),
     (mozjs_sym_meta_property, 645), (mozjs_sym_decorator, 1112),
     (mozjs_sym_formal_parameters, 1828), (mozjs_aux_sym_export_statement_repeat1, 1395),
     (mozjs_sym_identifier, 1050), (mozjs_anon_sym_export, 1052),
     (mozjs_anon_sym_LBRACE, 883), (mozjs_anon_sym_import, 390),
     (mozjs_anon_sym_let, 1052), (mozjs_anon_sym_await, 1054),
     (mozjs_anon_sym_LPAREN, 657), (mozjs_anon_sym_yield, 469),
     (mozjs_anon_sym_LBRACK, 889), (mozjs_anon_sym_LT, 827),
     (mozjs_anon_sym_DQUOTE, 407), (mozjs_anon_sym_SQUOTE, 409),
     (mozjs_anon_sym_class, 411), (mozjs_anon_sym_async, 1056),
     (mozjs_anon_sym_function, 415), (mozjs_anon_sym_new, 478),
     (mozjs_anon_sym_PLUS, 483), (mozjs_anon_sym_DASH, 483),
     (mozjs_anon_sym_SLASH, 665), (mozjs_anon_sym_BANG, 485),
     (mozjs_anon_sym_TILDE, 485), (mozjs_anon_sym_typeof, 483),
     (mozjs_anon_sym_void, 483), (mozjs_anon_sym_delete, 483),
     (mozjs_anon_sym_PLUS_PLUS, 691), (mozjs_anon_sym_DASH_DASH, 691),
     (mozjs_sym_comment, 5), (mozjs_anon_sym_BQUOTE, 669),
     (mozjs_sym_number, 437), (mozjs_sym_private_property_identifier, 490),
     (mozjs_sym_this, 441), (mozjs_sym_super, 441),
     (mozjs_sym_true, 441), (mozjs_sym_false, 441),
     (mozjs_sym_null, 441), (mozjs_sym_undefined, 1058),
     (mozjs_anon_sym_AT, 93), (mozjs_anon_sym_static, 1052),
     (mozjs_anon_sym_get, 1052), (mozjs_anon_sym_set, 1052),
     (mozjs_sym_html_comment, 5)]"

definition mozjs_parse_row_223 :: "(TSSymbol \<times> nat) list" where
  "mozjs_parse_row_223 =
    [(mozjs_sym_import, 1333), (mozjs_sym_parenthesized_expression, 556),
     (mozjs_sym_expression, 700), (mozjs_sym_primary_expression, 693),
     (mozjs_sym_yield_expression, 743), (mozjs_sym_object, 793),
     (mozjs_sym_object_pattern, 1845), (mozjs_sym_array, 793),
     (mozjs_sym_array_pattern, 1845), (mozjs_sym_jsx_element, 743),
     (mozjs_sym_jsx_opening_element, 1158), (mozjs_sym_jsx_self_closing_element, 743),
     (mozjs_sym_class, 793), (mozjs_sym_function_expression, 793),
     (mozjs_sym_generator_function, 793), (mozjs_sym_arrow_function, 793),
     (mozjs_sym_call_expression, 793), (mozjs_sym_new_expression, 692),
     (mozjs_sym_await_expression, 743), (mozjs_sym_member_expression, 556),
     (mozjs_sym_subscript_expression, 556), (mozjs_sym_assignment_expression, 743),
     (mozjs_sym__augmented_assignment_lhs, 1146), (mozjs_sym_augmented_assignment_expression,
       743),
     (mozjs_sym__destructuring_pattern, 1845), (mozjs_sym_ternary_expression, 743),
     (mozjs_sym_binary_expression, 743), (mozjs_sym_unary_expression, 743),
     (mozjs_sym_update_expression, 743), (mozjs_sym_string, 793),
     (mozjs_sym_template_string, 793), (mozjs_sym_regex, 793),
     (mozjs_sym_meta_property, 793), (mozjs_sym_decorator, 1112),
     (mozjs_sym_formal_parameters, 1847), (mozjs_aux_sym_export_statement_repeat1, 1331),
     (mozjs_sym_identifier, 303), (mozjs_anon_sym_export, 305),
     (mozjs_anon_sym_LBRACE, 309), (mozjs_anon_sym_import, 315),
     (mozjs_anon_sym_let, 305), (mozjs_anon_sym_await, 319),
     (mozjs_anon_sym_LPAREN, 37), (mozjs_anon_sym_yield, 57),
     (mozjs_anon_sym_LBRACK, 59), (mozjs_anon_sym_LT, 61),
     (mozjs_anon_sym_DQUOTE, 63), (mozjs_anon_sym_SQUOTE, 65),
     (mozjs_anon_sym_class, 336), (mozjs_anon_sym_async, 338),
     (mozjs_anon_sym_function, 340), (mozjs_anon_sym_new, 73),
     (mozjs_anon_sym_PLUS, 75), (mozjs_anon_sym_DASH, 75),
     (mozjs_anon_sym_SLASH, 77), (mozjs_anon_sym_BANG, 79),
     (mozjs_anon_sym_TILDE, 79), (mozjs_anon_sym_typeof, 75),
     (mozjs_anon_sym_void, 75), (mozjs_anon_sym_delete, 75),
     (mozjs_anon_sym_PLUS_PLUS, 81), (mozjs_anon_sym_DASH_DASH, 81),
     (mozjs_sym_comment, 5), (mozjs_anon_sym_BQUOTE, 83),
     (mozjs_sym_number, 85), (mozjs_sym_private_property_identifier, 358),
     (mozjs_sym_this, 89), (mozjs_sym_super, 89),
     (mozjs_sym_true, 89), (mozjs_sym_false, 89),
     (mozjs_sym_null, 89), (mozjs_sym_undefined, 91),
     (mozjs_anon_sym_AT, 93), (mozjs_anon_sym_static, 305),
     (mozjs_anon_sym_get, 305), (mozjs_anon_sym_set, 305),
     (mozjs_sym_html_comment, 5)]"

definition mozjs_parse_row_224 :: "(TSSymbol \<times> nat) list" where
  "mozjs_parse_row_224 =
    [(mozjs_sym_import, 1333), (mozjs_sym_parenthesized_expression, 556),
     (mozjs_sym_expression, 775), (mozjs_sym_primary_expression, 693),
     (mozjs_sym_yield_expression, 743), (mozjs_sym_object, 793),
     (mozjs_sym_object_pattern, 1845), (mozjs_sym_array, 793),
     (mozjs_sym_array_pattern, 1845), (mozjs_sym_jsx_element, 743),
     (mozjs_sym_jsx_opening_element, 1158), (mozjs_sym_jsx_self_closing_element, 743),
     (mozjs_sym_class, 793), (mozjs_sym_function_expression, 793),
     (mozjs_sym_generator_function, 793), (mozjs_sym_arrow_function, 793),
     (mozjs_sym_call_expression, 793), (mozjs_sym_new_expression, 692),
     (mozjs_sym_await_expression, 743), (mozjs_sym_member_expression, 556),
     (mozjs_sym_subscript_expression, 556), (mozjs_sym_assignment_expression, 743),
     (mozjs_sym__augmented_assignment_lhs, 1146), (mozjs_sym_augmented_assignment_expression,
       743),
     (mozjs_sym__destructuring_pattern, 1845), (mozjs_sym_ternary_expression, 743),
     (mozjs_sym_binary_expression, 743), (mozjs_sym_unary_expression, 743),
     (mozjs_sym_update_expression, 743), (mozjs_sym_string, 793),
     (mozjs_sym_template_string, 793), (mozjs_sym_regex, 793),
     (mozjs_sym_meta_property, 793), (mozjs_sym_decorator, 1112),
     (mozjs_sym_formal_parameters, 1847), (mozjs_aux_sym_export_statement_repeat1, 1331),
     (mozjs_sym_identifier, 303), (mozjs_anon_sym_export, 305),
     (mozjs_anon_sym_LBRACE, 309), (mozjs_anon_sym_import, 315),
     (mozjs_anon_sym_let, 305), (mozjs_anon_sym_await, 319),
     (mozjs_anon_sym_LPAREN, 37), (mozjs_anon_sym_yield, 57),
     (mozjs_anon_sym_LBRACK, 59), (mozjs_anon_sym_LT, 61),
     (mozjs_anon_sym_DQUOTE, 63), (mozjs_anon_sym_SQUOTE, 65),
     (mozjs_anon_sym_class, 336), (mozjs_anon_sym_async, 338),
     (mozjs_anon_sym_function, 340), (mozjs_anon_sym_new, 73),
     (mozjs_anon_sym_PLUS, 75), (mozjs_anon_sym_DASH, 75),
     (mozjs_anon_sym_SLASH, 77), (mozjs_anon_sym_BANG, 79),
     (mozjs_anon_sym_TILDE, 79), (mozjs_anon_sym_typeof, 75),
     (mozjs_anon_sym_void, 75), (mozjs_anon_sym_delete, 75),
     (mozjs_anon_sym_PLUS_PLUS, 81), (mozjs_anon_sym_DASH_DASH, 81),
     (mozjs_sym_comment, 5), (mozjs_anon_sym_BQUOTE, 83),
     (mozjs_sym_number, 85), (mozjs_sym_private_property_identifier, 358),
     (mozjs_sym_this, 89), (mozjs_sym_super, 89),
     (mozjs_sym_true, 89), (mozjs_sym_false, 89),
     (mozjs_sym_null, 89), (mozjs_sym_undefined, 91),
     (mozjs_anon_sym_AT, 93), (mozjs_anon_sym_static, 305),
     (mozjs_anon_sym_get, 305), (mozjs_anon_sym_set, 305),
     (mozjs_sym_html_comment, 5)]"

definition mozjs_parse_row_225 :: "(TSSymbol \<times> nat) list" where
  "mozjs_parse_row_225 =
    [(mozjs_sym_import, 1333), (mozjs_sym_parenthesized_expression, 556),
     (mozjs_sym_expression, 736), (mozjs_sym_primary_expression, 693),
     (mozjs_sym_yield_expression, 743), (mozjs_sym_object, 793),
     (mozjs_sym_object_pattern, 1845), (mozjs_sym_array, 793),
     (mozjs_sym_array_pattern, 1845), (mozjs_sym_jsx_element, 743),
     (mozjs_sym_jsx_opening_element, 1158), (mozjs_sym_jsx_self_closing_element, 743),
     (mozjs_sym_class, 793), (mozjs_sym_function_expression, 793),
     (mozjs_sym_generator_function, 793), (mozjs_sym_arrow_function, 793),
     (mozjs_sym_call_expression, 793), (mozjs_sym_new_expression, 692),
     (mozjs_sym_await_expression, 743), (mozjs_sym_member_expression, 556),
     (mozjs_sym_subscript_expression, 556), (mozjs_sym_assignment_expression, 743),
     (mozjs_sym__augmented_assignment_lhs, 1146), (mozjs_sym_augmented_assignment_expression,
       743),
     (mozjs_sym__destructuring_pattern, 1845), (mozjs_sym_ternary_expression, 743),
     (mozjs_sym_binary_expression, 743), (mozjs_sym_unary_expression, 743),
     (mozjs_sym_update_expression, 743), (mozjs_sym_string, 793),
     (mozjs_sym_template_string, 793), (mozjs_sym_regex, 793),
     (mozjs_sym_meta_property, 793), (mozjs_sym_decorator, 1112),
     (mozjs_sym_formal_parameters, 1847), (mozjs_aux_sym_export_statement_repeat1, 1331),
     (mozjs_sym_identifier, 303), (mozjs_anon_sym_export, 305),
     (mozjs_anon_sym_LBRACE, 309), (mozjs_anon_sym_import, 315),
     (mozjs_anon_sym_let, 305), (mozjs_anon_sym_await, 319),
     (mozjs_anon_sym_LPAREN, 37), (mozjs_anon_sym_yield, 57),
     (mozjs_anon_sym_LBRACK, 59), (mozjs_anon_sym_LT, 61),
     (mozjs_anon_sym_DQUOTE, 63), (mozjs_anon_sym_SQUOTE, 65),
     (mozjs_anon_sym_class, 336), (mozjs_anon_sym_async, 338),
     (mozjs_anon_sym_function, 340), (mozjs_anon_sym_new, 73),
     (mozjs_anon_sym_PLUS, 75), (mozjs_anon_sym_DASH, 75),
     (mozjs_anon_sym_SLASH, 77), (mozjs_anon_sym_BANG, 79),
     (mozjs_anon_sym_TILDE, 79), (mozjs_anon_sym_typeof, 75),
     (mozjs_anon_sym_void, 75), (mozjs_anon_sym_delete, 75),
     (mozjs_anon_sym_PLUS_PLUS, 81), (mozjs_anon_sym_DASH_DASH, 81),
     (mozjs_sym_comment, 5), (mozjs_anon_sym_BQUOTE, 83),
     (mozjs_sym_number, 85), (mozjs_sym_private_property_identifier, 358),
     (mozjs_sym_this, 89), (mozjs_sym_super, 89),
     (mozjs_sym_true, 89), (mozjs_sym_false, 89),
     (mozjs_sym_null, 89), (mozjs_sym_undefined, 91),
     (mozjs_anon_sym_AT, 93), (mozjs_anon_sym_static, 305),
     (mozjs_anon_sym_get, 305), (mozjs_anon_sym_set, 305),
     (mozjs_sym_html_comment, 5)]"

definition mozjs_parse_row_226 :: "(TSSymbol \<times> nat) list" where
  "mozjs_parse_row_226 =
    [(mozjs_sym_import, 1340), (mozjs_sym_parenthesized_expression, 525),
     (mozjs_sym_expression, 906), (mozjs_sym_primary_expression, 584),
     (mozjs_sym_yield_expression, 638), (mozjs_sym_object, 645),
     (mozjs_sym_object_pattern, 1827), (mozjs_sym_array, 645),
     (mozjs_sym_array_pattern, 1827), (mozjs_sym_jsx_element, 638),
     (mozjs_sym_jsx_opening_element, 1152), (mozjs_sym_jsx_self_closing_element, 638),
     (mozjs_sym_class, 645), (mozjs_sym_function_expression, 645),
     (mozjs_sym_generator_function, 645), (mozjs_sym_arrow_function, 645),
     (mozjs_sym_call_expression, 645), (mozjs_sym_new_expression, 587),
     (mozjs_sym_await_expression, 638), (mozjs_sym_member_expression, 525),
     (mozjs_sym_subscript_expression, 525), (mozjs_sym_assignment_expression, 638),
     (mozjs_sym__augmented_assignment_lhs, 1145), (mozjs_sym_augmented_assignment_expression,
       638),
     (mozjs_sym__destructuring_pattern, 1827), (mozjs_sym_ternary_expression, 638),
     (mozjs_sym_binary_expression, 638), (mozjs_sym_unary_expression, 638),
     (mozjs_sym_update_expression, 638), (mozjs_sym_string, 645),
     (mozjs_sym_template_string, 645), (mozjs_sym_regex, 645),
     (mozjs_sym_meta_property, 645), (mozjs_sym_decorator, 1112),
     (mozjs_sym_formal_parameters, 1777), (mozjs_aux_sym_export_statement_repeat1, 1395),
     (mozjs_sym_identifier, 384), (mozjs_anon_sym_export, 386),
     (mozjs_anon_sym_LBRACE, 388), (mozjs_anon_sym_import, 390),
     (mozjs_anon_sym_let, 386), (mozjs_anon_sym_await, 392),
     (mozjs_anon_sym_LPAREN, 657), (mozjs_anon_sym_yield, 397),
     (mozjs_anon_sym_LBRACK, 661), (mozjs_anon_sym_LT, 827),
     (mozjs_anon_sym_DQUOTE, 407), (mozjs_anon_sym_SQUOTE, 409),
     (mozjs_anon_sym_class, 411), (mozjs_anon_sym_async, 413),
     (mozjs_anon_sym_function, 415), (mozjs_anon_sym_new, 419),
     (mozjs_anon_sym_PLUS, 427), (mozjs_anon_sym_DASH, 427),
     (mozjs_anon_sym_SLASH, 665), (mozjs_anon_sym_BANG, 429),
     (mozjs_anon_sym_TILDE, 429), (mozjs_anon_sym_typeof, 427),
     (mozjs_anon_sym_void, 427), (mozjs_anon_sym_delete, 427),
     (mozjs_anon_sym_PLUS_PLUS, 667), (mozjs_anon_sym_DASH_DASH, 667),
     (mozjs_sym_comment, 5), (mozjs_anon_sym_BQUOTE, 669),
     (mozjs_sym_number, 437), (mozjs_sym_private_property_identifier, 439),
     (mozjs_sym_this, 441), (mozjs_sym_super, 441),
     (mozjs_sym_true, 441), (mozjs_sym_false, 441),
     (mozjs_sym_null, 441), (mozjs_sym_undefined, 443),
     (mozjs_anon_sym_AT, 93), (mozjs_anon_sym_static, 386),
     (mozjs_anon_sym_get, 386), (mozjs_anon_sym_set, 386),
     (mozjs_sym_html_comment, 5)]"

definition mozjs_parse_row_227 :: "(TSSymbol \<times> nat) list" where
  "mozjs_parse_row_227 =
    [(mozjs_sym_import, 1333), (mozjs_sym_parenthesized_expression, 556),
     (mozjs_sym_expression, 755), (mozjs_sym_primary_expression, 693),
     (mozjs_sym_yield_expression, 743), (mozjs_sym_object, 793),
     (mozjs_sym_object_pattern, 1845), (mozjs_sym_array, 793),
     (mozjs_sym_array_pattern, 1845), (mozjs_sym_jsx_element, 743),
     (mozjs_sym_jsx_opening_element, 1158), (mozjs_sym_jsx_self_closing_element, 743),
     (mozjs_sym_class, 793), (mozjs_sym_function_expression, 793),
     (mozjs_sym_generator_function, 793), (mozjs_sym_arrow_function, 793),
     (mozjs_sym_call_expression, 793), (mozjs_sym_new_expression, 692),
     (mozjs_sym_await_expression, 743), (mozjs_sym_member_expression, 556),
     (mozjs_sym_subscript_expression, 556), (mozjs_sym_assignment_expression, 743),
     (mozjs_sym__augmented_assignment_lhs, 1146), (mozjs_sym_augmented_assignment_expression,
       743),
     (mozjs_sym__destructuring_pattern, 1845), (mozjs_sym_ternary_expression, 743),
     (mozjs_sym_binary_expression, 743), (mozjs_sym_unary_expression, 743),
     (mozjs_sym_update_expression, 743), (mozjs_sym_string, 793),
     (mozjs_sym_template_string, 793), (mozjs_sym_regex, 793),
     (mozjs_sym_meta_property, 793), (mozjs_sym_decorator, 1112),
     (mozjs_sym_formal_parameters, 1847), (mozjs_aux_sym_export_statement_repeat1, 1331),
     (mozjs_sym_identifier, 303), (mozjs_anon_sym_export, 305),
     (mozjs_anon_sym_LBRACE, 309), (mozjs_anon_sym_import, 315),
     (mozjs_anon_sym_let, 305), (mozjs_anon_sym_await, 319),
     (mozjs_anon_sym_LPAREN, 37), (mozjs_anon_sym_yield, 57),
     (mozjs_anon_sym_LBRACK, 59), (mozjs_anon_sym_LT, 61),
     (mozjs_anon_sym_DQUOTE, 63), (mozjs_anon_sym_SQUOTE, 65),
     (mozjs_anon_sym_class, 336), (mozjs_anon_sym_async, 338),
     (mozjs_anon_sym_function, 340), (mozjs_anon_sym_new, 73),
     (mozjs_anon_sym_PLUS, 75), (mozjs_anon_sym_DASH, 75),
     (mozjs_anon_sym_SLASH, 77), (mozjs_anon_sym_BANG, 79),
     (mozjs_anon_sym_TILDE, 79), (mozjs_anon_sym_typeof, 75),
     (mozjs_anon_sym_void, 75), (mozjs_anon_sym_delete, 75),
     (mozjs_anon_sym_PLUS_PLUS, 81), (mozjs_anon_sym_DASH_DASH, 81),
     (mozjs_sym_comment, 5), (mozjs_anon_sym_BQUOTE, 83),
     (mozjs_sym_number, 85), (mozjs_sym_private_property_identifier, 358),
     (mozjs_sym_this, 89), (mozjs_sym_super, 89),
     (mozjs_sym_true, 89), (mozjs_sym_false, 89),
     (mozjs_sym_null, 89), (mozjs_sym_undefined, 91),
     (mozjs_anon_sym_AT, 93), (mozjs_anon_sym_static, 305),
     (mozjs_anon_sym_get, 305), (mozjs_anon_sym_set, 305),
     (mozjs_sym_html_comment, 5)]"

definition mozjs_parse_row_228 :: "(TSSymbol \<times> nat) list" where
  "mozjs_parse_row_228 =
    [(mozjs_sym_import, 1333), (mozjs_sym_parenthesized_expression, 556),
     (mozjs_sym_expression, 689), (mozjs_sym_primary_expression, 693),
     (mozjs_sym_yield_expression, 743), (mozjs_sym_object, 793),
     (mozjs_sym_object_pattern, 1845), (mozjs_sym_array, 793),
     (mozjs_sym_array_pattern, 1845), (mozjs_sym_jsx_element, 743),
     (mozjs_sym_jsx_opening_element, 1158), (mozjs_sym_jsx_self_closing_element, 743),
     (mozjs_sym_class, 793), (mozjs_sym_function_expression, 793),
     (mozjs_sym_generator_function, 793), (mozjs_sym_arrow_function, 793),
     (mozjs_sym_call_expression, 793), (mozjs_sym_new_expression, 692),
     (mozjs_sym_await_expression, 743), (mozjs_sym_member_expression, 556),
     (mozjs_sym_subscript_expression, 556), (mozjs_sym_assignment_expression, 743),
     (mozjs_sym__augmented_assignment_lhs, 1146), (mozjs_sym_augmented_assignment_expression,
       743),
     (mozjs_sym__destructuring_pattern, 1845), (mozjs_sym_ternary_expression, 743),
     (mozjs_sym_binary_expression, 743), (mozjs_sym_unary_expression, 743),
     (mozjs_sym_update_expression, 743), (mozjs_sym_string, 793),
     (mozjs_sym_template_string, 793), (mozjs_sym_regex, 793),
     (mozjs_sym_meta_property, 793), (mozjs_sym_decorator, 1112),
     (mozjs_sym_formal_parameters, 1847), (mozjs_aux_sym_export_statement_repeat1, 1331),
     (mozjs_sym_identifier, 303), (mozjs_anon_sym_export, 305),
     (mozjs_anon_sym_LBRACE, 309), (mozjs_anon_sym_import, 315),
     (mozjs_anon_sym_let, 305), (mozjs_anon_sym_await, 319),
     (mozjs_anon_sym_LPAREN, 37), (mozjs_anon_sym_yield, 57),
     (mozjs_anon_sym_LBRACK, 59), (mozjs_anon_sym_LT, 61),
     (mozjs_anon_sym_DQUOTE, 63), (mozjs_anon_sym_SQUOTE, 65),
     (mozjs_anon_sym_class, 336), (mozjs_anon_sym_async, 338),
     (mozjs_anon_sym_function, 340), (mozjs_anon_sym_new, 73),
     (mozjs_anon_sym_PLUS, 75), (mozjs_anon_sym_DASH, 75),
     (mozjs_anon_sym_SLASH, 77), (mozjs_anon_sym_BANG, 79),
     (mozjs_anon_sym_TILDE, 79), (mozjs_anon_sym_typeof, 75),
     (mozjs_anon_sym_void, 75), (mozjs_anon_sym_delete, 75),
     (mozjs_anon_sym_PLUS_PLUS, 81), (mozjs_anon_sym_DASH_DASH, 81),
     (mozjs_sym_comment, 5), (mozjs_anon_sym_BQUOTE, 83),
     (mozjs_sym_number, 85), (mozjs_sym_private_property_identifier, 358),
     (mozjs_sym_this, 89), (mozjs_sym_super, 89),
     (mozjs_sym_true, 89), (mozjs_sym_false, 89),
     (mozjs_sym_null, 89), (mozjs_sym_undefined, 91),
     (mozjs_anon_sym_AT, 93), (mozjs_anon_sym_static, 305),
     (mozjs_anon_sym_get, 305), (mozjs_anon_sym_set, 305),
     (mozjs_sym_html_comment, 5)]"

definition mozjs_parse_row_229 :: "(TSSymbol \<times> nat) list" where
  "mozjs_parse_row_229 =
    [(mozjs_sym_import, 1340), (mozjs_sym_parenthesized_expression, 578),
     (mozjs_sym_expression, 982), (mozjs_sym_primary_expression, 584),
     (mozjs_sym_yield_expression, 638), (mozjs_sym_object, 645),
     (mozjs_sym_object_pattern, 1808), (mozjs_sym_array, 645),
     (mozjs_sym_array_pattern, 1808), (mozjs_sym_jsx_element, 638),
     (mozjs_sym_jsx_opening_element, 1152), (mozjs_sym_jsx_self_closing_element, 638),
     (mozjs_sym_class, 645), (mozjs_sym_function_expression, 645),
     (mozjs_sym_generator_function, 645), (mozjs_sym_arrow_function, 645),
     (mozjs_sym_call_expression, 645), (mozjs_sym_new_expression, 587),
     (mozjs_sym_await_expression, 638), (mozjs_sym_member_expression, 578),
     (mozjs_sym_subscript_expression, 578), (mozjs_sym_assignment_expression, 638),
     (mozjs_sym__augmented_assignment_lhs, 1147), (mozjs_sym_augmented_assignment_expression,
       638),
     (mozjs_sym__destructuring_pattern, 1808), (mozjs_sym_ternary_expression, 638),
     (mozjs_sym_binary_expression, 638), (mozjs_sym_unary_expression, 638),
     (mozjs_sym_update_expression, 638), (mozjs_sym_string, 645),
     (mozjs_sym_template_string, 645), (mozjs_sym_regex, 645),
     (mozjs_sym_meta_property, 645), (mozjs_sym_decorator, 1112),
     (mozjs_sym_formal_parameters, 1838), (mozjs_aux_sym_export_statement_repeat1, 1395),
     (mozjs_sym_identifier, 620), (mozjs_anon_sym_export, 622),
     (mozjs_anon_sym_LBRACE, 465), (mozjs_anon_sym_import, 390),
     (mozjs_anon_sym_let, 622), (mozjs_anon_sym_await, 627),
     (mozjs_anon_sym_LPAREN, 657), (mozjs_anon_sym_yield, 629),
     (mozjs_anon_sym_LBRACK, 683), (mozjs_anon_sym_LT, 827),
     (mozjs_anon_sym_DQUOTE, 407), (mozjs_anon_sym_SQUOTE, 409),
     (mozjs_anon_sym_class, 411), (mozjs_anon_sym_async, 633),
     (mozjs_anon_sym_function, 415), (mozjs_anon_sym_new, 637),
     (mozjs_anon_sym_PLUS, 642), (mozjs_anon_sym_DASH, 642),
     (mozjs_anon_sym_SLASH, 665), (mozjs_anon_sym_BANG, 644),
     (mozjs_anon_sym_TILDE, 644), (mozjs_anon_sym_typeof, 642),
     (mozjs_anon_sym_void, 642), (mozjs_anon_sym_delete, 642),
     (mozjs_anon_sym_PLUS_PLUS, 695), (mozjs_anon_sym_DASH_DASH, 695),
     (mozjs_sym_comment, 5), (mozjs_anon_sym_BQUOTE, 669),
     (mozjs_sym_number, 437), (mozjs_sym_private_property_identifier, 649),
     (mozjs_sym_this, 441), (mozjs_sym_super, 441),
     (mozjs_sym_true, 441), (mozjs_sym_false, 441),
     (mozjs_sym_null, 441), (mozjs_sym_undefined, 651),
     (mozjs_anon_sym_AT, 93), (mozjs_anon_sym_static, 622),
     (mozjs_anon_sym_get, 622), (mozjs_anon_sym_set, 622),
     (mozjs_sym_html_comment, 5)]"

definition mozjs_parse_row_230 :: "(TSSymbol \<times> nat) list" where
  "mozjs_parse_row_230 =
    [(mozjs_sym_import, 1333), (mozjs_sym_parenthesized_expression, 556),
     (mozjs_sym_expression, 724), (mozjs_sym_primary_expression, 693),
     (mozjs_sym_yield_expression, 743), (mozjs_sym_object, 793),
     (mozjs_sym_object_pattern, 1845), (mozjs_sym_array, 793),
     (mozjs_sym_array_pattern, 1845), (mozjs_sym_jsx_element, 743),
     (mozjs_sym_jsx_opening_element, 1158), (mozjs_sym_jsx_self_closing_element, 743),
     (mozjs_sym_class, 793), (mozjs_sym_function_expression, 793),
     (mozjs_sym_generator_function, 793), (mozjs_sym_arrow_function, 793),
     (mozjs_sym_call_expression, 793), (mozjs_sym_new_expression, 692),
     (mozjs_sym_await_expression, 743), (mozjs_sym_member_expression, 556),
     (mozjs_sym_subscript_expression, 556), (mozjs_sym_assignment_expression, 743),
     (mozjs_sym__augmented_assignment_lhs, 1146), (mozjs_sym_augmented_assignment_expression,
       743),
     (mozjs_sym__destructuring_pattern, 1845), (mozjs_sym_ternary_expression, 743),
     (mozjs_sym_binary_expression, 743), (mozjs_sym_unary_expression, 743),
     (mozjs_sym_update_expression, 743), (mozjs_sym_string, 793),
     (mozjs_sym_template_string, 793), (mozjs_sym_regex, 793),
     (mozjs_sym_meta_property, 793), (mozjs_sym_decorator, 1112),
     (mozjs_sym_formal_parameters, 1847), (mozjs_aux_sym_export_statement_repeat1, 1331),
     (mozjs_sym_identifier, 303), (mozjs_anon_sym_export, 305),
     (mozjs_anon_sym_LBRACE, 309), (mozjs_anon_sym_import, 315),
     (mozjs_anon_sym_let, 305), (mozjs_anon_sym_await, 319),
     (mozjs_anon_sym_LPAREN, 37), (mozjs_anon_sym_yield, 57),
     (mozjs_anon_sym_LBRACK, 59), (mozjs_anon_sym_LT, 61),
     (mozjs_anon_sym_DQUOTE, 63), (mozjs_anon_sym_SQUOTE, 65),
     (mozjs_anon_sym_class, 336), (mozjs_anon_sym_async, 338),
     (mozjs_anon_sym_function, 340), (mozjs_anon_sym_new, 73),
     (mozjs_anon_sym_PLUS, 75), (mozjs_anon_sym_DASH, 75),
     (mozjs_anon_sym_SLASH, 77), (mozjs_anon_sym_BANG, 79),
     (mozjs_anon_sym_TILDE, 79), (mozjs_anon_sym_typeof, 75),
     (mozjs_anon_sym_void, 75), (mozjs_anon_sym_delete, 75),
     (mozjs_anon_sym_PLUS_PLUS, 81), (mozjs_anon_sym_DASH_DASH, 81),
     (mozjs_sym_comment, 5), (mozjs_anon_sym_BQUOTE, 83),
     (mozjs_sym_number, 85), (mozjs_sym_private_property_identifier, 358),
     (mozjs_sym_this, 89), (mozjs_sym_super, 89),
     (mozjs_sym_true, 89), (mozjs_sym_false, 89),
     (mozjs_sym_null, 89), (mozjs_sym_undefined, 91),
     (mozjs_anon_sym_AT, 93), (mozjs_anon_sym_static, 305),
     (mozjs_anon_sym_get, 305), (mozjs_anon_sym_set, 305),
     (mozjs_sym_html_comment, 5)]"

definition mozjs_parse_row_231 :: "(TSSymbol \<times> nat) list" where
  "mozjs_parse_row_231 =
    [(mozjs_sym_import, 1333), (mozjs_sym_parenthesized_expression, 556),
     (mozjs_sym_expression, 731), (mozjs_sym_primary_expression, 693),
     (mozjs_sym_yield_expression, 743), (mozjs_sym_object, 793),
     (mozjs_sym_object_pattern, 1845), (mozjs_sym_array, 793),
     (mozjs_sym_array_pattern, 1845), (mozjs_sym_jsx_element, 743),
     (mozjs_sym_jsx_opening_element, 1158), (mozjs_sym_jsx_self_closing_element, 743),
     (mozjs_sym_class, 793), (mozjs_sym_function_expression, 793),
     (mozjs_sym_generator_function, 793), (mozjs_sym_arrow_function, 793),
     (mozjs_sym_call_expression, 793), (mozjs_sym_new_expression, 692),
     (mozjs_sym_await_expression, 743), (mozjs_sym_member_expression, 556),
     (mozjs_sym_subscript_expression, 556), (mozjs_sym_assignment_expression, 743),
     (mozjs_sym__augmented_assignment_lhs, 1146), (mozjs_sym_augmented_assignment_expression,
       743),
     (mozjs_sym__destructuring_pattern, 1845), (mozjs_sym_ternary_expression, 743),
     (mozjs_sym_binary_expression, 743), (mozjs_sym_unary_expression, 743),
     (mozjs_sym_update_expression, 743), (mozjs_sym_string, 793),
     (mozjs_sym_template_string, 793), (mozjs_sym_regex, 793),
     (mozjs_sym_meta_property, 793), (mozjs_sym_decorator, 1112),
     (mozjs_sym_formal_parameters, 1847), (mozjs_aux_sym_export_statement_repeat1, 1331),
     (mozjs_sym_identifier, 303), (mozjs_anon_sym_export, 305),
     (mozjs_anon_sym_LBRACE, 309), (mozjs_anon_sym_import, 315),
     (mozjs_anon_sym_let, 305), (mozjs_anon_sym_await, 319),
     (mozjs_anon_sym_LPAREN, 37), (mozjs_anon_sym_yield, 57),
     (mozjs_anon_sym_LBRACK, 59), (mozjs_anon_sym_LT, 61),
     (mozjs_anon_sym_DQUOTE, 63), (mozjs_anon_sym_SQUOTE, 65),
     (mozjs_anon_sym_class, 336), (mozjs_anon_sym_async, 338),
     (mozjs_anon_sym_function, 340), (mozjs_anon_sym_new, 73),
     (mozjs_anon_sym_PLUS, 75), (mozjs_anon_sym_DASH, 75),
     (mozjs_anon_sym_SLASH, 77), (mozjs_anon_sym_BANG, 79),
     (mozjs_anon_sym_TILDE, 79), (mozjs_anon_sym_typeof, 75),
     (mozjs_anon_sym_void, 75), (mozjs_anon_sym_delete, 75),
     (mozjs_anon_sym_PLUS_PLUS, 81), (mozjs_anon_sym_DASH_DASH, 81),
     (mozjs_sym_comment, 5), (mozjs_anon_sym_BQUOTE, 83),
     (mozjs_sym_number, 85), (mozjs_sym_private_property_identifier, 358),
     (mozjs_sym_this, 89), (mozjs_sym_super, 89),
     (mozjs_sym_true, 89), (mozjs_sym_false, 89),
     (mozjs_sym_null, 89), (mozjs_sym_undefined, 91),
     (mozjs_anon_sym_AT, 93), (mozjs_anon_sym_static, 305),
     (mozjs_anon_sym_get, 305), (mozjs_anon_sym_set, 305),
     (mozjs_sym_html_comment, 5)]"

definition mozjs_parse_row_232 :: "(TSSymbol \<times> nat) list" where
  "mozjs_parse_row_232 =
    [(mozjs_sym_import, 1333), (mozjs_sym_parenthesized_expression, 556),
     (mozjs_sym_expression, 757), (mozjs_sym_primary_expression, 693),
     (mozjs_sym_yield_expression, 743), (mozjs_sym_object, 793),
     (mozjs_sym_object_pattern, 1845), (mozjs_sym_array, 793),
     (mozjs_sym_array_pattern, 1845), (mozjs_sym_jsx_element, 743),
     (mozjs_sym_jsx_opening_element, 1158), (mozjs_sym_jsx_self_closing_element, 743),
     (mozjs_sym_class, 793), (mozjs_sym_function_expression, 793),
     (mozjs_sym_generator_function, 793), (mozjs_sym_arrow_function, 793),
     (mozjs_sym_call_expression, 793), (mozjs_sym_new_expression, 692),
     (mozjs_sym_await_expression, 743), (mozjs_sym_member_expression, 556),
     (mozjs_sym_subscript_expression, 556), (mozjs_sym_assignment_expression, 743),
     (mozjs_sym__augmented_assignment_lhs, 1146), (mozjs_sym_augmented_assignment_expression,
       743),
     (mozjs_sym__destructuring_pattern, 1845), (mozjs_sym_ternary_expression, 743),
     (mozjs_sym_binary_expression, 743), (mozjs_sym_unary_expression, 743),
     (mozjs_sym_update_expression, 743), (mozjs_sym_string, 793),
     (mozjs_sym_template_string, 793), (mozjs_sym_regex, 793),
     (mozjs_sym_meta_property, 793), (mozjs_sym_decorator, 1112),
     (mozjs_sym_formal_parameters, 1847), (mozjs_aux_sym_export_statement_repeat1, 1331),
     (mozjs_sym_identifier, 303), (mozjs_anon_sym_export, 305),
     (mozjs_anon_sym_LBRACE, 309), (mozjs_anon_sym_import, 315),
     (mozjs_anon_sym_let, 305), (mozjs_anon_sym_await, 319),
     (mozjs_anon_sym_LPAREN, 37), (mozjs_anon_sym_yield, 57),
     (mozjs_anon_sym_LBRACK, 59), (mozjs_anon_sym_LT, 61),
     (mozjs_anon_sym_DQUOTE, 63), (mozjs_anon_sym_SQUOTE, 65),
     (mozjs_anon_sym_class, 336), (mozjs_anon_sym_async, 338),
     (mozjs_anon_sym_function, 340), (mozjs_anon_sym_new, 73),
     (mozjs_anon_sym_PLUS, 75), (mozjs_anon_sym_DASH, 75),
     (mozjs_anon_sym_SLASH, 77), (mozjs_anon_sym_BANG, 79),
     (mozjs_anon_sym_TILDE, 79), (mozjs_anon_sym_typeof, 75),
     (mozjs_anon_sym_void, 75), (mozjs_anon_sym_delete, 75),
     (mozjs_anon_sym_PLUS_PLUS, 81), (mozjs_anon_sym_DASH_DASH, 81),
     (mozjs_sym_comment, 5), (mozjs_anon_sym_BQUOTE, 83),
     (mozjs_sym_number, 85), (mozjs_sym_private_property_identifier, 358),
     (mozjs_sym_this, 89), (mozjs_sym_super, 89),
     (mozjs_sym_true, 89), (mozjs_sym_false, 89),
     (mozjs_sym_null, 89), (mozjs_sym_undefined, 91),
     (mozjs_anon_sym_AT, 93), (mozjs_anon_sym_static, 305),
     (mozjs_anon_sym_get, 305), (mozjs_anon_sym_set, 305),
     (mozjs_sym_html_comment, 5)]"

definition mozjs_parse_row_233 :: "(TSSymbol \<times> nat) list" where
  "mozjs_parse_row_233 =
    [(mozjs_sym_import, 1333), (mozjs_sym_parenthesized_expression, 556),
     (mozjs_sym_expression, 852), (mozjs_sym_primary_expression, 693),
     (mozjs_sym_yield_expression, 743), (mozjs_sym_object, 793),
     (mozjs_sym_object_pattern, 1845), (mozjs_sym_array, 793),
     (mozjs_sym_array_pattern, 1845), (mozjs_sym_jsx_element, 743),
     (mozjs_sym_jsx_opening_element, 1158), (mozjs_sym_jsx_self_closing_element, 743),
     (mozjs_sym_class, 793), (mozjs_sym_function_expression, 793),
     (mozjs_sym_generator_function, 793), (mozjs_sym_arrow_function, 793),
     (mozjs_sym_call_expression, 793), (mozjs_sym_new_expression, 692),
     (mozjs_sym_await_expression, 743), (mozjs_sym_member_expression, 556),
     (mozjs_sym_subscript_expression, 556), (mozjs_sym_assignment_expression, 743),
     (mozjs_sym__augmented_assignment_lhs, 1146), (mozjs_sym_augmented_assignment_expression,
       743),
     (mozjs_sym__destructuring_pattern, 1845), (mozjs_sym_ternary_expression, 743),
     (mozjs_sym_binary_expression, 743), (mozjs_sym_unary_expression, 743),
     (mozjs_sym_update_expression, 743), (mozjs_sym_string, 793),
     (mozjs_sym_template_string, 793), (mozjs_sym_regex, 793),
     (mozjs_sym_meta_property, 793), (mozjs_sym_decorator, 1112),
     (mozjs_sym_formal_parameters, 1847), (mozjs_aux_sym_export_statement_repeat1, 1331),
     (mozjs_sym_identifier, 303), (mozjs_anon_sym_export, 305),
     (mozjs_anon_sym_LBRACE, 309), (mozjs_anon_sym_import, 315),
     (mozjs_anon_sym_let, 305), (mozjs_anon_sym_await, 319),
     (mozjs_anon_sym_LPAREN, 37), (mozjs_anon_sym_yield, 57),
     (mozjs_anon_sym_LBRACK, 59), (mozjs_anon_sym_LT, 61),
     (mozjs_anon_sym_DQUOTE, 63), (mozjs_anon_sym_SQUOTE, 65),
     (mozjs_anon_sym_class, 336), (mozjs_anon_sym_async, 338),
     (mozjs_anon_sym_function, 340), (mozjs_anon_sym_new, 73),
     (mozjs_anon_sym_PLUS, 75), (mozjs_anon_sym_DASH, 75),
     (mozjs_anon_sym_SLASH, 77), (mozjs_anon_sym_BANG, 79),
     (mozjs_anon_sym_TILDE, 79), (mozjs_anon_sym_typeof, 75),
     (mozjs_anon_sym_void, 75), (mozjs_anon_sym_delete, 75),
     (mozjs_anon_sym_PLUS_PLUS, 81), (mozjs_anon_sym_DASH_DASH, 81),
     (mozjs_sym_comment, 5), (mozjs_anon_sym_BQUOTE, 83),
     (mozjs_sym_number, 85), (mozjs_sym_private_property_identifier, 358),
     (mozjs_sym_this, 89), (mozjs_sym_super, 89),
     (mozjs_sym_true, 89), (mozjs_sym_false, 89),
     (mozjs_sym_null, 89), (mozjs_sym_undefined, 91),
     (mozjs_anon_sym_AT, 93), (mozjs_anon_sym_static, 305),
     (mozjs_anon_sym_get, 305), (mozjs_anon_sym_set, 305),
     (mozjs_sym_html_comment, 5)]"

definition mozjs_parse_row_234 :: "(TSSymbol \<times> nat) list" where
  "mozjs_parse_row_234 =
    [(mozjs_sym_import, 1333), (mozjs_sym_parenthesized_expression, 556),
     (mozjs_sym_expression, 759), (mozjs_sym_primary_expression, 693),
     (mozjs_sym_yield_expression, 743), (mozjs_sym_object, 793),
     (mozjs_sym_object_pattern, 1845), (mozjs_sym_array, 793),
     (mozjs_sym_array_pattern, 1845), (mozjs_sym_jsx_element, 743),
     (mozjs_sym_jsx_opening_element, 1158), (mozjs_sym_jsx_self_closing_element, 743),
     (mozjs_sym_class, 793), (mozjs_sym_function_expression, 793),
     (mozjs_sym_generator_function, 793), (mozjs_sym_arrow_function, 793),
     (mozjs_sym_call_expression, 793), (mozjs_sym_new_expression, 692),
     (mozjs_sym_await_expression, 743), (mozjs_sym_member_expression, 556),
     (mozjs_sym_subscript_expression, 556), (mozjs_sym_assignment_expression, 743),
     (mozjs_sym__augmented_assignment_lhs, 1146), (mozjs_sym_augmented_assignment_expression,
       743),
     (mozjs_sym__destructuring_pattern, 1845), (mozjs_sym_ternary_expression, 743),
     (mozjs_sym_binary_expression, 743), (mozjs_sym_unary_expression, 743),
     (mozjs_sym_update_expression, 743), (mozjs_sym_string, 793),
     (mozjs_sym_template_string, 793), (mozjs_sym_regex, 793),
     (mozjs_sym_meta_property, 793), (mozjs_sym_decorator, 1112),
     (mozjs_sym_formal_parameters, 1847), (mozjs_aux_sym_export_statement_repeat1, 1331),
     (mozjs_sym_identifier, 303), (mozjs_anon_sym_export, 305),
     (mozjs_anon_sym_LBRACE, 309), (mozjs_anon_sym_import, 315),
     (mozjs_anon_sym_let, 305), (mozjs_anon_sym_await, 319),
     (mozjs_anon_sym_LPAREN, 37), (mozjs_anon_sym_yield, 57),
     (mozjs_anon_sym_LBRACK, 59), (mozjs_anon_sym_LT, 61),
     (mozjs_anon_sym_DQUOTE, 63), (mozjs_anon_sym_SQUOTE, 65),
     (mozjs_anon_sym_class, 336), (mozjs_anon_sym_async, 338),
     (mozjs_anon_sym_function, 340), (mozjs_anon_sym_new, 73),
     (mozjs_anon_sym_PLUS, 75), (mozjs_anon_sym_DASH, 75),
     (mozjs_anon_sym_SLASH, 77), (mozjs_anon_sym_BANG, 79),
     (mozjs_anon_sym_TILDE, 79), (mozjs_anon_sym_typeof, 75),
     (mozjs_anon_sym_void, 75), (mozjs_anon_sym_delete, 75),
     (mozjs_anon_sym_PLUS_PLUS, 81), (mozjs_anon_sym_DASH_DASH, 81),
     (mozjs_sym_comment, 5), (mozjs_anon_sym_BQUOTE, 83),
     (mozjs_sym_number, 85), (mozjs_sym_private_property_identifier, 358),
     (mozjs_sym_this, 89), (mozjs_sym_super, 89),
     (mozjs_sym_true, 89), (mozjs_sym_false, 89),
     (mozjs_sym_null, 89), (mozjs_sym_undefined, 91),
     (mozjs_anon_sym_AT, 93), (mozjs_anon_sym_static, 305),
     (mozjs_anon_sym_get, 305), (mozjs_anon_sym_set, 305),
     (mozjs_sym_html_comment, 5)]"

definition mozjs_parse_row_235 :: "(TSSymbol \<times> nat) list" where
  "mozjs_parse_row_235 =
    [(mozjs_sym_import, 1333), (mozjs_sym_parenthesized_expression, 556),
     (mozjs_sym_expression, 761), (mozjs_sym_primary_expression, 693),
     (mozjs_sym_yield_expression, 743), (mozjs_sym_object, 793),
     (mozjs_sym_object_pattern, 1845), (mozjs_sym_array, 793),
     (mozjs_sym_array_pattern, 1845), (mozjs_sym_jsx_element, 743),
     (mozjs_sym_jsx_opening_element, 1158), (mozjs_sym_jsx_self_closing_element, 743),
     (mozjs_sym_class, 793), (mozjs_sym_function_expression, 793),
     (mozjs_sym_generator_function, 793), (mozjs_sym_arrow_function, 793),
     (mozjs_sym_call_expression, 793), (mozjs_sym_new_expression, 692),
     (mozjs_sym_await_expression, 743), (mozjs_sym_member_expression, 556),
     (mozjs_sym_subscript_expression, 556), (mozjs_sym_assignment_expression, 743),
     (mozjs_sym__augmented_assignment_lhs, 1146), (mozjs_sym_augmented_assignment_expression,
       743),
     (mozjs_sym__destructuring_pattern, 1845), (mozjs_sym_ternary_expression, 743),
     (mozjs_sym_binary_expression, 743), (mozjs_sym_unary_expression, 743),
     (mozjs_sym_update_expression, 743), (mozjs_sym_string, 793),
     (mozjs_sym_template_string, 793), (mozjs_sym_regex, 793),
     (mozjs_sym_meta_property, 793), (mozjs_sym_decorator, 1112),
     (mozjs_sym_formal_parameters, 1847), (mozjs_aux_sym_export_statement_repeat1, 1331),
     (mozjs_sym_identifier, 303), (mozjs_anon_sym_export, 305),
     (mozjs_anon_sym_LBRACE, 309), (mozjs_anon_sym_import, 315),
     (mozjs_anon_sym_let, 305), (mozjs_anon_sym_await, 319),
     (mozjs_anon_sym_LPAREN, 37), (mozjs_anon_sym_yield, 57),
     (mozjs_anon_sym_LBRACK, 59), (mozjs_anon_sym_LT, 61),
     (mozjs_anon_sym_DQUOTE, 63), (mozjs_anon_sym_SQUOTE, 65),
     (mozjs_anon_sym_class, 336), (mozjs_anon_sym_async, 338),
     (mozjs_anon_sym_function, 340), (mozjs_anon_sym_new, 73),
     (mozjs_anon_sym_PLUS, 75), (mozjs_anon_sym_DASH, 75),
     (mozjs_anon_sym_SLASH, 77), (mozjs_anon_sym_BANG, 79),
     (mozjs_anon_sym_TILDE, 79), (mozjs_anon_sym_typeof, 75),
     (mozjs_anon_sym_void, 75), (mozjs_anon_sym_delete, 75),
     (mozjs_anon_sym_PLUS_PLUS, 81), (mozjs_anon_sym_DASH_DASH, 81),
     (mozjs_sym_comment, 5), (mozjs_anon_sym_BQUOTE, 83),
     (mozjs_sym_number, 85), (mozjs_sym_private_property_identifier, 358),
     (mozjs_sym_this, 89), (mozjs_sym_super, 89),
     (mozjs_sym_true, 89), (mozjs_sym_false, 89),
     (mozjs_sym_null, 89), (mozjs_sym_undefined, 91),
     (mozjs_anon_sym_AT, 93), (mozjs_anon_sym_static, 305),
     (mozjs_anon_sym_get, 305), (mozjs_anon_sym_set, 305),
     (mozjs_sym_html_comment, 5)]"

definition mozjs_parse_row_236 :: "(TSSymbol \<times> nat) list" where
  "mozjs_parse_row_236 =
    [(mozjs_sym_import, 1333), (mozjs_sym_parenthesized_expression, 556),
     (mozjs_sym_expression, 765), (mozjs_sym_primary_expression, 693),
     (mozjs_sym_yield_expression, 743), (mozjs_sym_object, 793),
     (mozjs_sym_object_pattern, 1845), (mozjs_sym_array, 793),
     (mozjs_sym_array_pattern, 1845), (mozjs_sym_jsx_element, 743),
     (mozjs_sym_jsx_opening_element, 1158), (mozjs_sym_jsx_self_closing_element, 743),
     (mozjs_sym_class, 793), (mozjs_sym_function_expression, 793),
     (mozjs_sym_generator_function, 793), (mozjs_sym_arrow_function, 793),
     (mozjs_sym_call_expression, 793), (mozjs_sym_new_expression, 692),
     (mozjs_sym_await_expression, 743), (mozjs_sym_member_expression, 556),
     (mozjs_sym_subscript_expression, 556), (mozjs_sym_assignment_expression, 743),
     (mozjs_sym__augmented_assignment_lhs, 1146), (mozjs_sym_augmented_assignment_expression,
       743),
     (mozjs_sym__destructuring_pattern, 1845), (mozjs_sym_ternary_expression, 743),
     (mozjs_sym_binary_expression, 743), (mozjs_sym_unary_expression, 743),
     (mozjs_sym_update_expression, 743), (mozjs_sym_string, 793),
     (mozjs_sym_template_string, 793), (mozjs_sym_regex, 793),
     (mozjs_sym_meta_property, 793), (mozjs_sym_decorator, 1112),
     (mozjs_sym_formal_parameters, 1847), (mozjs_aux_sym_export_statement_repeat1, 1331),
     (mozjs_sym_identifier, 303), (mozjs_anon_sym_export, 305),
     (mozjs_anon_sym_LBRACE, 309), (mozjs_anon_sym_import, 315),
     (mozjs_anon_sym_let, 305), (mozjs_anon_sym_await, 319),
     (mozjs_anon_sym_LPAREN, 37), (mozjs_anon_sym_yield, 57),
     (mozjs_anon_sym_LBRACK, 59), (mozjs_anon_sym_LT, 61),
     (mozjs_anon_sym_DQUOTE, 63), (mozjs_anon_sym_SQUOTE, 65),
     (mozjs_anon_sym_class, 336), (mozjs_anon_sym_async, 338),
     (mozjs_anon_sym_function, 340), (mozjs_anon_sym_new, 73),
     (mozjs_anon_sym_PLUS, 75), (mozjs_anon_sym_DASH, 75),
     (mozjs_anon_sym_SLASH, 77), (mozjs_anon_sym_BANG, 79),
     (mozjs_anon_sym_TILDE, 79), (mozjs_anon_sym_typeof, 75),
     (mozjs_anon_sym_void, 75), (mozjs_anon_sym_delete, 75),
     (mozjs_anon_sym_PLUS_PLUS, 81), (mozjs_anon_sym_DASH_DASH, 81),
     (mozjs_sym_comment, 5), (mozjs_anon_sym_BQUOTE, 83),
     (mozjs_sym_number, 85), (mozjs_sym_private_property_identifier, 358),
     (mozjs_sym_this, 89), (mozjs_sym_super, 89),
     (mozjs_sym_true, 89), (mozjs_sym_false, 89),
     (mozjs_sym_null, 89), (mozjs_sym_undefined, 91),
     (mozjs_anon_sym_AT, 93), (mozjs_anon_sym_static, 305),
     (mozjs_anon_sym_get, 305), (mozjs_anon_sym_set, 305),
     (mozjs_sym_html_comment, 5)]"

definition mozjs_parse_row_237 :: "(TSSymbol \<times> nat) list" where
  "mozjs_parse_row_237 =
    [(mozjs_sym_import, 1333), (mozjs_sym_parenthesized_expression, 556),
     (mozjs_sym_expression, 769), (mozjs_sym_primary_expression, 693),
     (mozjs_sym_yield_expression, 743), (mozjs_sym_object, 793),
     (mozjs_sym_object_pattern, 1845), (mozjs_sym_array, 793),
     (mozjs_sym_array_pattern, 1845), (mozjs_sym_jsx_element, 743),
     (mozjs_sym_jsx_opening_element, 1158), (mozjs_sym_jsx_self_closing_element, 743),
     (mozjs_sym_class, 793), (mozjs_sym_function_expression, 793),
     (mozjs_sym_generator_function, 793), (mozjs_sym_arrow_function, 793),
     (mozjs_sym_call_expression, 793), (mozjs_sym_new_expression, 692),
     (mozjs_sym_await_expression, 743), (mozjs_sym_member_expression, 556),
     (mozjs_sym_subscript_expression, 556), (mozjs_sym_assignment_expression, 743),
     (mozjs_sym__augmented_assignment_lhs, 1146), (mozjs_sym_augmented_assignment_expression,
       743),
     (mozjs_sym__destructuring_pattern, 1845), (mozjs_sym_ternary_expression, 743),
     (mozjs_sym_binary_expression, 743), (mozjs_sym_unary_expression, 743),
     (mozjs_sym_update_expression, 743), (mozjs_sym_string, 793),
     (mozjs_sym_template_string, 793), (mozjs_sym_regex, 793),
     (mozjs_sym_meta_property, 793), (mozjs_sym_decorator, 1112),
     (mozjs_sym_formal_parameters, 1847), (mozjs_aux_sym_export_statement_repeat1, 1331),
     (mozjs_sym_identifier, 303), (mozjs_anon_sym_export, 305),
     (mozjs_anon_sym_LBRACE, 309), (mozjs_anon_sym_import, 315),
     (mozjs_anon_sym_let, 305), (mozjs_anon_sym_await, 319),
     (mozjs_anon_sym_LPAREN, 37), (mozjs_anon_sym_yield, 57),
     (mozjs_anon_sym_LBRACK, 59), (mozjs_anon_sym_LT, 61),
     (mozjs_anon_sym_DQUOTE, 63), (mozjs_anon_sym_SQUOTE, 65),
     (mozjs_anon_sym_class, 336), (mozjs_anon_sym_async, 338),
     (mozjs_anon_sym_function, 340), (mozjs_anon_sym_new, 73),
     (mozjs_anon_sym_PLUS, 75), (mozjs_anon_sym_DASH, 75),
     (mozjs_anon_sym_SLASH, 77), (mozjs_anon_sym_BANG, 79),
     (mozjs_anon_sym_TILDE, 79), (mozjs_anon_sym_typeof, 75),
     (mozjs_anon_sym_void, 75), (mozjs_anon_sym_delete, 75),
     (mozjs_anon_sym_PLUS_PLUS, 81), (mozjs_anon_sym_DASH_DASH, 81),
     (mozjs_sym_comment, 5), (mozjs_anon_sym_BQUOTE, 83),
     (mozjs_sym_number, 85), (mozjs_sym_private_property_identifier, 358),
     (mozjs_sym_this, 89), (mozjs_sym_super, 89),
     (mozjs_sym_true, 89), (mozjs_sym_false, 89),
     (mozjs_sym_null, 89), (mozjs_sym_undefined, 91),
     (mozjs_anon_sym_AT, 93), (mozjs_anon_sym_static, 305),
     (mozjs_anon_sym_get, 305), (mozjs_anon_sym_set, 305),
     (mozjs_sym_html_comment, 5)]"

definition mozjs_parse_row_238 :: "(TSSymbol \<times> nat) list" where
  "mozjs_parse_row_238 =
    [(mozjs_sym_import, 1333), (mozjs_sym_parenthesized_expression, 556),
     (mozjs_sym_expression, 771), (mozjs_sym_primary_expression, 693),
     (mozjs_sym_yield_expression, 743), (mozjs_sym_object, 793),
     (mozjs_sym_object_pattern, 1845), (mozjs_sym_array, 793),
     (mozjs_sym_array_pattern, 1845), (mozjs_sym_jsx_element, 743),
     (mozjs_sym_jsx_opening_element, 1158), (mozjs_sym_jsx_self_closing_element, 743),
     (mozjs_sym_class, 793), (mozjs_sym_function_expression, 793),
     (mozjs_sym_generator_function, 793), (mozjs_sym_arrow_function, 793),
     (mozjs_sym_call_expression, 793), (mozjs_sym_new_expression, 692),
     (mozjs_sym_await_expression, 743), (mozjs_sym_member_expression, 556),
     (mozjs_sym_subscript_expression, 556), (mozjs_sym_assignment_expression, 743),
     (mozjs_sym__augmented_assignment_lhs, 1146), (mozjs_sym_augmented_assignment_expression,
       743),
     (mozjs_sym__destructuring_pattern, 1845), (mozjs_sym_ternary_expression, 743),
     (mozjs_sym_binary_expression, 743), (mozjs_sym_unary_expression, 743),
     (mozjs_sym_update_expression, 743), (mozjs_sym_string, 793),
     (mozjs_sym_template_string, 793), (mozjs_sym_regex, 793),
     (mozjs_sym_meta_property, 793), (mozjs_sym_decorator, 1112),
     (mozjs_sym_formal_parameters, 1847), (mozjs_aux_sym_export_statement_repeat1, 1331),
     (mozjs_sym_identifier, 303), (mozjs_anon_sym_export, 305),
     (mozjs_anon_sym_LBRACE, 309), (mozjs_anon_sym_import, 315),
     (mozjs_anon_sym_let, 305), (mozjs_anon_sym_await, 319),
     (mozjs_anon_sym_LPAREN, 37), (mozjs_anon_sym_yield, 57),
     (mozjs_anon_sym_LBRACK, 59), (mozjs_anon_sym_LT, 61),
     (mozjs_anon_sym_DQUOTE, 63), (mozjs_anon_sym_SQUOTE, 65),
     (mozjs_anon_sym_class, 336), (mozjs_anon_sym_async, 338),
     (mozjs_anon_sym_function, 340), (mozjs_anon_sym_new, 73),
     (mozjs_anon_sym_PLUS, 75), (mozjs_anon_sym_DASH, 75),
     (mozjs_anon_sym_SLASH, 77), (mozjs_anon_sym_BANG, 79),
     (mozjs_anon_sym_TILDE, 79), (mozjs_anon_sym_typeof, 75),
     (mozjs_anon_sym_void, 75), (mozjs_anon_sym_delete, 75),
     (mozjs_anon_sym_PLUS_PLUS, 81), (mozjs_anon_sym_DASH_DASH, 81),
     (mozjs_sym_comment, 5), (mozjs_anon_sym_BQUOTE, 83),
     (mozjs_sym_number, 85), (mozjs_sym_private_property_identifier, 358),
     (mozjs_sym_this, 89), (mozjs_sym_super, 89),
     (mozjs_sym_true, 89), (mozjs_sym_false, 89),
     (mozjs_sym_null, 89), (mozjs_sym_undefined, 91),
     (mozjs_anon_sym_AT, 93), (mozjs_anon_sym_static, 305),
     (mozjs_anon_sym_get, 305), (mozjs_anon_sym_set, 305),
     (mozjs_sym_html_comment, 5)]"

definition mozjs_parse_row_239 :: "(TSSymbol \<times> nat) list" where
  "mozjs_parse_row_239 =
    [(mozjs_sym_import, 1333), (mozjs_sym_parenthesized_expression, 556),
     (mozjs_sym_expression, 780), (mozjs_sym_primary_expression, 693),
     (mozjs_sym_yield_expression, 743), (mozjs_sym_object, 793),
     (mozjs_sym_object_pattern, 1845), (mozjs_sym_array, 793),
     (mozjs_sym_array_pattern, 1845), (mozjs_sym_jsx_element, 743),
     (mozjs_sym_jsx_opening_element, 1158), (mozjs_sym_jsx_self_closing_element, 743),
     (mozjs_sym_class, 793), (mozjs_sym_function_expression, 793),
     (mozjs_sym_generator_function, 793), (mozjs_sym_arrow_function, 793),
     (mozjs_sym_call_expression, 793), (mozjs_sym_new_expression, 692),
     (mozjs_sym_await_expression, 743), (mozjs_sym_member_expression, 556),
     (mozjs_sym_subscript_expression, 556), (mozjs_sym_assignment_expression, 743),
     (mozjs_sym__augmented_assignment_lhs, 1146), (mozjs_sym_augmented_assignment_expression,
       743),
     (mozjs_sym__destructuring_pattern, 1845), (mozjs_sym_ternary_expression, 743),
     (mozjs_sym_binary_expression, 743), (mozjs_sym_unary_expression, 743),
     (mozjs_sym_update_expression, 743), (mozjs_sym_string, 793),
     (mozjs_sym_template_string, 793), (mozjs_sym_regex, 793),
     (mozjs_sym_meta_property, 793), (mozjs_sym_decorator, 1112),
     (mozjs_sym_formal_parameters, 1847), (mozjs_aux_sym_export_statement_repeat1, 1331),
     (mozjs_sym_identifier, 303), (mozjs_anon_sym_export, 305),
     (mozjs_anon_sym_LBRACE, 309), (mozjs_anon_sym_import, 315),
     (mozjs_anon_sym_let, 305), (mozjs_anon_sym_await, 319),
     (mozjs_anon_sym_LPAREN, 37), (mozjs_anon_sym_yield, 57),
     (mozjs_anon_sym_LBRACK, 59), (mozjs_anon_sym_LT, 61),
     (mozjs_anon_sym_DQUOTE, 63), (mozjs_anon_sym_SQUOTE, 65),
     (mozjs_anon_sym_class, 336), (mozjs_anon_sym_async, 338),
     (mozjs_anon_sym_function, 340), (mozjs_anon_sym_new, 73),
     (mozjs_anon_sym_PLUS, 75), (mozjs_anon_sym_DASH, 75),
     (mozjs_anon_sym_SLASH, 77), (mozjs_anon_sym_BANG, 79),
     (mozjs_anon_sym_TILDE, 79), (mozjs_anon_sym_typeof, 75),
     (mozjs_anon_sym_void, 75), (mozjs_anon_sym_delete, 75),
     (mozjs_anon_sym_PLUS_PLUS, 81), (mozjs_anon_sym_DASH_DASH, 81),
     (mozjs_sym_comment, 5), (mozjs_anon_sym_BQUOTE, 83),
     (mozjs_sym_number, 85), (mozjs_sym_private_property_identifier, 358),
     (mozjs_sym_this, 89), (mozjs_sym_super, 89),
     (mozjs_sym_true, 89), (mozjs_sym_false, 89),
     (mozjs_sym_null, 89), (mozjs_sym_undefined, 91),
     (mozjs_anon_sym_AT, 93), (mozjs_anon_sym_static, 305),
     (mozjs_anon_sym_get, 305), (mozjs_anon_sym_set, 305),
     (mozjs_sym_html_comment, 5)]"

definition mozjs_parse_row_240 :: "(TSSymbol \<times> nat) list" where
  "mozjs_parse_row_240 =
    [(mozjs_sym_import, 1333), (mozjs_sym_parenthesized_expression, 556),
     (mozjs_sym_expression, 781), (mozjs_sym_primary_expression, 693),
     (mozjs_sym_yield_expression, 743), (mozjs_sym_object, 793),
     (mozjs_sym_object_pattern, 1845), (mozjs_sym_array, 793),
     (mozjs_sym_array_pattern, 1845), (mozjs_sym_jsx_element, 743),
     (mozjs_sym_jsx_opening_element, 1158), (mozjs_sym_jsx_self_closing_element, 743),
     (mozjs_sym_class, 793), (mozjs_sym_function_expression, 793),
     (mozjs_sym_generator_function, 793), (mozjs_sym_arrow_function, 793),
     (mozjs_sym_call_expression, 793), (mozjs_sym_new_expression, 692),
     (mozjs_sym_await_expression, 743), (mozjs_sym_member_expression, 556),
     (mozjs_sym_subscript_expression, 556), (mozjs_sym_assignment_expression, 743),
     (mozjs_sym__augmented_assignment_lhs, 1146), (mozjs_sym_augmented_assignment_expression,
       743),
     (mozjs_sym__destructuring_pattern, 1845), (mozjs_sym_ternary_expression, 743),
     (mozjs_sym_binary_expression, 743), (mozjs_sym_unary_expression, 743),
     (mozjs_sym_update_expression, 743), (mozjs_sym_string, 793),
     (mozjs_sym_template_string, 793), (mozjs_sym_regex, 793),
     (mozjs_sym_meta_property, 793), (mozjs_sym_decorator, 1112),
     (mozjs_sym_formal_parameters, 1847), (mozjs_aux_sym_export_statement_repeat1, 1331),
     (mozjs_sym_identifier, 303), (mozjs_anon_sym_export, 305),
     (mozjs_anon_sym_LBRACE, 309), (mozjs_anon_sym_import, 315),
     (mozjs_anon_sym_let, 305), (mozjs_anon_sym_await, 319),
     (mozjs_anon_sym_LPAREN, 37), (mozjs_anon_sym_yield, 57),
     (mozjs_anon_sym_LBRACK, 59), (mozjs_anon_sym_LT, 61),
     (mozjs_anon_sym_DQUOTE, 63), (mozjs_anon_sym_SQUOTE, 65),
     (mozjs_anon_sym_class, 336), (mozjs_anon_sym_async, 338),
     (mozjs_anon_sym_function, 340), (mozjs_anon_sym_new, 73),
     (mozjs_anon_sym_PLUS, 75), (mozjs_anon_sym_DASH, 75),
     (mozjs_anon_sym_SLASH, 77), (mozjs_anon_sym_BANG, 79),
     (mozjs_anon_sym_TILDE, 79), (mozjs_anon_sym_typeof, 75),
     (mozjs_anon_sym_void, 75), (mozjs_anon_sym_delete, 75),
     (mozjs_anon_sym_PLUS_PLUS, 81), (mozjs_anon_sym_DASH_DASH, 81),
     (mozjs_sym_comment, 5), (mozjs_anon_sym_BQUOTE, 83),
     (mozjs_sym_number, 85), (mozjs_sym_private_property_identifier, 358),
     (mozjs_sym_this, 89), (mozjs_sym_super, 89),
     (mozjs_sym_true, 89), (mozjs_sym_false, 89),
     (mozjs_sym_null, 89), (mozjs_sym_undefined, 91),
     (mozjs_anon_sym_AT, 93), (mozjs_anon_sym_static, 305),
     (mozjs_anon_sym_get, 305), (mozjs_anon_sym_set, 305),
     (mozjs_sym_html_comment, 5)]"

definition mozjs_parse_row_241 :: "(TSSymbol \<times> nat) list" where
  "mozjs_parse_row_241 =
    [(mozjs_sym_import, 1333), (mozjs_sym_parenthesized_expression, 556),
     (mozjs_sym_expression, 782), (mozjs_sym_primary_expression, 693),
     (mozjs_sym_yield_expression, 743), (mozjs_sym_object, 793),
     (mozjs_sym_object_pattern, 1845), (mozjs_sym_array, 793),
     (mozjs_sym_array_pattern, 1845), (mozjs_sym_jsx_element, 743),
     (mozjs_sym_jsx_opening_element, 1158), (mozjs_sym_jsx_self_closing_element, 743),
     (mozjs_sym_class, 793), (mozjs_sym_function_expression, 793),
     (mozjs_sym_generator_function, 793), (mozjs_sym_arrow_function, 793),
     (mozjs_sym_call_expression, 793), (mozjs_sym_new_expression, 692),
     (mozjs_sym_await_expression, 743), (mozjs_sym_member_expression, 556),
     (mozjs_sym_subscript_expression, 556), (mozjs_sym_assignment_expression, 743),
     (mozjs_sym__augmented_assignment_lhs, 1146), (mozjs_sym_augmented_assignment_expression,
       743),
     (mozjs_sym__destructuring_pattern, 1845), (mozjs_sym_ternary_expression, 743),
     (mozjs_sym_binary_expression, 743), (mozjs_sym_unary_expression, 743),
     (mozjs_sym_update_expression, 743), (mozjs_sym_string, 793),
     (mozjs_sym_template_string, 793), (mozjs_sym_regex, 793),
     (mozjs_sym_meta_property, 793), (mozjs_sym_decorator, 1112),
     (mozjs_sym_formal_parameters, 1847), (mozjs_aux_sym_export_statement_repeat1, 1331),
     (mozjs_sym_identifier, 303), (mozjs_anon_sym_export, 305),
     (mozjs_anon_sym_LBRACE, 309), (mozjs_anon_sym_import, 315),
     (mozjs_anon_sym_let, 305), (mozjs_anon_sym_await, 319),
     (mozjs_anon_sym_LPAREN, 37), (mozjs_anon_sym_yield, 57),
     (mozjs_anon_sym_LBRACK, 59), (mozjs_anon_sym_LT, 61),
     (mozjs_anon_sym_DQUOTE, 63), (mozjs_anon_sym_SQUOTE, 65),
     (mozjs_anon_sym_class, 336), (mozjs_anon_sym_async, 338),
     (mozjs_anon_sym_function, 340), (mozjs_anon_sym_new, 73),
     (mozjs_anon_sym_PLUS, 75), (mozjs_anon_sym_DASH, 75),
     (mozjs_anon_sym_SLASH, 77), (mozjs_anon_sym_BANG, 79),
     (mozjs_anon_sym_TILDE, 79), (mozjs_anon_sym_typeof, 75),
     (mozjs_anon_sym_void, 75), (mozjs_anon_sym_delete, 75),
     (mozjs_anon_sym_PLUS_PLUS, 81), (mozjs_anon_sym_DASH_DASH, 81),
     (mozjs_sym_comment, 5), (mozjs_anon_sym_BQUOTE, 83),
     (mozjs_sym_number, 85), (mozjs_sym_private_property_identifier, 358),
     (mozjs_sym_this, 89), (mozjs_sym_super, 89),
     (mozjs_sym_true, 89), (mozjs_sym_false, 89),
     (mozjs_sym_null, 89), (mozjs_sym_undefined, 91),
     (mozjs_anon_sym_AT, 93), (mozjs_anon_sym_static, 305),
     (mozjs_anon_sym_get, 305), (mozjs_anon_sym_set, 305),
     (mozjs_sym_html_comment, 5)]"

definition mozjs_parse_row_242 :: "(TSSymbol \<times> nat) list" where
  "mozjs_parse_row_242 =
    [(mozjs_sym_import, 1333), (mozjs_sym_parenthesized_expression, 556),
     (mozjs_sym_expression, 783), (mozjs_sym_primary_expression, 693),
     (mozjs_sym_yield_expression, 743), (mozjs_sym_object, 793),
     (mozjs_sym_object_pattern, 1845), (mozjs_sym_array, 793),
     (mozjs_sym_array_pattern, 1845), (mozjs_sym_jsx_element, 743),
     (mozjs_sym_jsx_opening_element, 1158), (mozjs_sym_jsx_self_closing_element, 743),
     (mozjs_sym_class, 793), (mozjs_sym_function_expression, 793),
     (mozjs_sym_generator_function, 793), (mozjs_sym_arrow_function, 793),
     (mozjs_sym_call_expression, 793), (mozjs_sym_new_expression, 692),
     (mozjs_sym_await_expression, 743), (mozjs_sym_member_expression, 556),
     (mozjs_sym_subscript_expression, 556), (mozjs_sym_assignment_expression, 743),
     (mozjs_sym__augmented_assignment_lhs, 1146), (mozjs_sym_augmented_assignment_expression,
       743),
     (mozjs_sym__destructuring_pattern, 1845), (mozjs_sym_ternary_expression, 743),
     (mozjs_sym_binary_expression, 743), (mozjs_sym_unary_expression, 743),
     (mozjs_sym_update_expression, 743), (mozjs_sym_string, 793),
     (mozjs_sym_template_string, 793), (mozjs_sym_regex, 793),
     (mozjs_sym_meta_property, 793), (mozjs_sym_decorator, 1112),
     (mozjs_sym_formal_parameters, 1847), (mozjs_aux_sym_export_statement_repeat1, 1331),
     (mozjs_sym_identifier, 303), (mozjs_anon_sym_export, 305),
     (mozjs_anon_sym_LBRACE, 309), (mozjs_anon_sym_import, 315),
     (mozjs_anon_sym_let, 305), (mozjs_anon_sym_await, 319),
     (mozjs_anon_sym_LPAREN, 37), (mozjs_anon_sym_yield, 57),
     (mozjs_anon_sym_LBRACK, 59), (mozjs_anon_sym_LT, 61),
     (mozjs_anon_sym_DQUOTE, 63), (mozjs_anon_sym_SQUOTE, 65),
     (mozjs_anon_sym_class, 336), (mozjs_anon_sym_async, 338),
     (mozjs_anon_sym_function, 340), (mozjs_anon_sym_new, 73),
     (mozjs_anon_sym_PLUS, 75), (mozjs_anon_sym_DASH, 75),
     (mozjs_anon_sym_SLASH, 77), (mozjs_anon_sym_BANG, 79),
     (mozjs_anon_sym_TILDE, 79), (mozjs_anon_sym_typeof, 75),
     (mozjs_anon_sym_void, 75), (mozjs_anon_sym_delete, 75),
     (mozjs_anon_sym_PLUS_PLUS, 81), (mozjs_anon_sym_DASH_DASH, 81),
     (mozjs_sym_comment, 5), (mozjs_anon_sym_BQUOTE, 83),
     (mozjs_sym_number, 85), (mozjs_sym_private_property_identifier, 358),
     (mozjs_sym_this, 89), (mozjs_sym_super, 89),
     (mozjs_sym_true, 89), (mozjs_sym_false, 89),
     (mozjs_sym_null, 89), (mozjs_sym_undefined, 91),
     (mozjs_anon_sym_AT, 93), (mozjs_anon_sym_static, 305),
     (mozjs_anon_sym_get, 305), (mozjs_anon_sym_set, 305),
     (mozjs_sym_html_comment, 5)]"

definition mozjs_parse_row_243 :: "(TSSymbol \<times> nat) list" where
  "mozjs_parse_row_243 =
    [(mozjs_sym_import, 1340), (mozjs_sym_parenthesized_expression, 525),
     (mozjs_sym_expression, 591), (mozjs_sym_primary_expression, 584),
     (mozjs_sym_yield_expression, 638), (mozjs_sym_object, 645),
     (mozjs_sym_object_pattern, 1827), (mozjs_sym_array, 645),
     (mozjs_sym_array_pattern, 1827), (mozjs_sym_jsx_element, 638),
     (mozjs_sym_jsx_opening_element, 1152), (mozjs_sym_jsx_self_closing_element, 638),
     (mozjs_sym_class, 645), (mozjs_sym_function_expression, 645),
     (mozjs_sym_generator_function, 645), (mozjs_sym_arrow_function, 645),
     (mozjs_sym_call_expression, 645), (mozjs_sym_new_expression, 587),
     (mozjs_sym_await_expression, 638), (mozjs_sym_member_expression, 525),
     (mozjs_sym_subscript_expression, 525), (mozjs_sym_assignment_expression, 638),
     (mozjs_sym__augmented_assignment_lhs, 1145), (mozjs_sym_augmented_assignment_expression,
       638),
     (mozjs_sym__destructuring_pattern, 1827), (mozjs_sym_ternary_expression, 638),
     (mozjs_sym_binary_expression, 638), (mozjs_sym_unary_expression, 638),
     (mozjs_sym_update_expression, 638), (mozjs_sym_string, 645),
     (mozjs_sym_template_string, 645), (mozjs_sym_regex, 645),
     (mozjs_sym_meta_property, 645), (mozjs_sym_decorator, 1112),
     (mozjs_sym_formal_parameters, 1777), (mozjs_aux_sym_export_statement_repeat1, 1395),
     (mozjs_sym_identifier, 384), (mozjs_anon_sym_export, 386),
     (mozjs_anon_sym_LBRACE, 388), (mozjs_anon_sym_import, 390),
     (mozjs_anon_sym_let, 386), (mozjs_anon_sym_await, 392),
     (mozjs_anon_sym_LPAREN, 657), (mozjs_anon_sym_yield, 397),
     (mozjs_anon_sym_LBRACK, 661), (mozjs_anon_sym_LT, 827),
     (mozjs_anon_sym_DQUOTE, 407), (mozjs_anon_sym_SQUOTE, 409),
     (mozjs_anon_sym_class, 411), (mozjs_anon_sym_async, 413),
     (mozjs_anon_sym_function, 415), (mozjs_anon_sym_new, 419),
     (mozjs_anon_sym_PLUS, 427), (mozjs_anon_sym_DASH, 427),
     (mozjs_anon_sym_SLASH, 665), (mozjs_anon_sym_BANG, 429),
     (mozjs_anon_sym_TILDE, 429), (mozjs_anon_sym_typeof, 427),
     (mozjs_anon_sym_void, 427), (mozjs_anon_sym_delete, 427),
     (mozjs_anon_sym_PLUS_PLUS, 667), (mozjs_anon_sym_DASH_DASH, 667),
     (mozjs_sym_comment, 5), (mozjs_anon_sym_BQUOTE, 669),
     (mozjs_sym_number, 437), (mozjs_sym_private_property_identifier, 439),
     (mozjs_sym_this, 441), (mozjs_sym_super, 441),
     (mozjs_sym_true, 441), (mozjs_sym_false, 441),
     (mozjs_sym_null, 441), (mozjs_sym_undefined, 443),
     (mozjs_anon_sym_AT, 93), (mozjs_anon_sym_static, 386),
     (mozjs_anon_sym_get, 386), (mozjs_anon_sym_set, 386),
     (mozjs_sym_html_comment, 5)]"

definition mozjs_parse_row_244 :: "(TSSymbol \<times> nat) list" where
  "mozjs_parse_row_244 =
    [(mozjs_sym_import, 1340), (mozjs_sym_parenthesized_expression, 525),
     (mozjs_sym_expression, 585), (mozjs_sym_primary_expression, 584),
     (mozjs_sym_yield_expression, 638), (mozjs_sym_object, 645),
     (mozjs_sym_object_pattern, 1827), (mozjs_sym_array, 645),
     (mozjs_sym_array_pattern, 1827), (mozjs_sym_jsx_element, 638),
     (mozjs_sym_jsx_opening_element, 1152), (mozjs_sym_jsx_self_closing_element, 638),
     (mozjs_sym_class, 645), (mozjs_sym_function_expression, 645),
     (mozjs_sym_generator_function, 645), (mozjs_sym_arrow_function, 645),
     (mozjs_sym_call_expression, 645), (mozjs_sym_new_expression, 587),
     (mozjs_sym_await_expression, 638), (mozjs_sym_member_expression, 525),
     (mozjs_sym_subscript_expression, 525), (mozjs_sym_assignment_expression, 638),
     (mozjs_sym__augmented_assignment_lhs, 1145), (mozjs_sym_augmented_assignment_expression,
       638),
     (mozjs_sym__destructuring_pattern, 1827), (mozjs_sym_ternary_expression, 638),
     (mozjs_sym_binary_expression, 638), (mozjs_sym_unary_expression, 638),
     (mozjs_sym_update_expression, 638), (mozjs_sym_string, 645),
     (mozjs_sym_template_string, 645), (mozjs_sym_regex, 645),
     (mozjs_sym_meta_property, 645), (mozjs_sym_decorator, 1112),
     (mozjs_sym_formal_parameters, 1777), (mozjs_aux_sym_export_statement_repeat1, 1395),
     (mozjs_sym_identifier, 384), (mozjs_anon_sym_export, 386),
     (mozjs_anon_sym_LBRACE, 388), (mozjs_anon_sym_import, 390),
     (mozjs_anon_sym_let, 386), (mozjs_anon_sym_await, 392),
     (mozjs_anon_sym_LPAREN, 657), (mozjs_anon_sym_yield, 397),
     (mozjs_anon_sym_LBRACK, 661), (mozjs_anon_sym_LT, 827),
     (mozjs_anon_sym_DQUOTE, 407), (mozjs_anon_sym_SQUOTE, 409),
     (mozjs_anon_sym_class, 411), (mozjs_anon_sym_async, 413),
     (mozjs_anon_sym_function, 415), (mozjs_anon_sym_new, 419),
     (mozjs_anon_sym_PLUS, 427), (mozjs_anon_sym_DASH, 427),
     (mozjs_anon_sym_SLASH, 665), (mozjs_anon_sym_BANG, 429),
     (mozjs_anon_sym_TILDE, 429), (mozjs_anon_sym_typeof, 427),
     (mozjs_anon_sym_void, 427), (mozjs_anon_sym_delete, 427),
     (mozjs_anon_sym_PLUS_PLUS, 667), (mozjs_anon_sym_DASH_DASH, 667),
     (mozjs_sym_comment, 5), (mozjs_anon_sym_BQUOTE, 669),
     (mozjs_sym_number, 437), (mozjs_sym_private_property_identifier, 439),
     (mozjs_sym_this, 441), (mozjs_sym_super, 441),
     (mozjs_sym_true, 441), (mozjs_sym_false, 441),
     (mozjs_sym_null, 441), (mozjs_sym_undefined, 443),
     (mozjs_anon_sym_AT, 93), (mozjs_anon_sym_static, 386),
     (mozjs_anon_sym_get, 386), (mozjs_anon_sym_set, 386),
     (mozjs_sym_html_comment, 5)]"

definition mozjs_parse_row_245 :: "(TSSymbol \<times> nat) list" where
  "mozjs_parse_row_245 =
    [(mozjs_sym_import, 1340), (mozjs_sym_parenthesized_expression, 525),
     (mozjs_sym_expression, 675), (mozjs_sym_primary_expression, 584),
     (mozjs_sym_yield_expression, 638), (mozjs_sym_object, 645),
     (mozjs_sym_object_pattern, 1827), (mozjs_sym_array, 645),
     (mozjs_sym_array_pattern, 1827), (mozjs_sym_jsx_element, 638),
     (mozjs_sym_jsx_opening_element, 1152), (mozjs_sym_jsx_self_closing_element, 638),
     (mozjs_sym_class, 645), (mozjs_sym_function_expression, 645),
     (mozjs_sym_generator_function, 645), (mozjs_sym_arrow_function, 645),
     (mozjs_sym_call_expression, 645), (mozjs_sym_new_expression, 587),
     (mozjs_sym_await_expression, 638), (mozjs_sym_member_expression, 525),
     (mozjs_sym_subscript_expression, 525), (mozjs_sym_assignment_expression, 638),
     (mozjs_sym__augmented_assignment_lhs, 1145), (mozjs_sym_augmented_assignment_expression,
       638),
     (mozjs_sym__destructuring_pattern, 1827), (mozjs_sym_ternary_expression, 638),
     (mozjs_sym_binary_expression, 638), (mozjs_sym_unary_expression, 638),
     (mozjs_sym_update_expression, 638), (mozjs_sym_string, 645),
     (mozjs_sym_template_string, 645), (mozjs_sym_regex, 645),
     (mozjs_sym_meta_property, 645), (mozjs_sym_decorator, 1112),
     (mozjs_sym_formal_parameters, 1777), (mozjs_aux_sym_export_statement_repeat1, 1395),
     (mozjs_sym_identifier, 384), (mozjs_anon_sym_export, 386),
     (mozjs_anon_sym_LBRACE, 388), (mozjs_anon_sym_import, 390),
     (mozjs_anon_sym_let, 386), (mozjs_anon_sym_await, 392),
     (mozjs_anon_sym_LPAREN, 657), (mozjs_anon_sym_yield, 397),
     (mozjs_anon_sym_LBRACK, 661), (mozjs_anon_sym_LT, 827),
     (mozjs_anon_sym_DQUOTE, 407), (mozjs_anon_sym_SQUOTE, 409),
     (mozjs_anon_sym_class, 411), (mozjs_anon_sym_async, 413),
     (mozjs_anon_sym_function, 415), (mozjs_anon_sym_new, 419),
     (mozjs_anon_sym_PLUS, 427), (mozjs_anon_sym_DASH, 427),
     (mozjs_anon_sym_SLASH, 665), (mozjs_anon_sym_BANG, 429),
     (mozjs_anon_sym_TILDE, 429), (mozjs_anon_sym_typeof, 427),
     (mozjs_anon_sym_void, 427), (mozjs_anon_sym_delete, 427),
     (mozjs_anon_sym_PLUS_PLUS, 667), (mozjs_anon_sym_DASH_DASH, 667),
     (mozjs_sym_comment, 5), (mozjs_anon_sym_BQUOTE, 669),
     (mozjs_sym_number, 437), (mozjs_sym_private_property_identifier, 439),
     (mozjs_sym_this, 441), (mozjs_sym_super, 441),
     (mozjs_sym_true, 441), (mozjs_sym_false, 441),
     (mozjs_sym_null, 441), (mozjs_sym_undefined, 443),
     (mozjs_anon_sym_AT, 93), (mozjs_anon_sym_static, 386),
     (mozjs_anon_sym_get, 386), (mozjs_anon_sym_set, 386),
     (mozjs_sym_html_comment, 5)]"

definition mozjs_parse_row_246 :: "(TSSymbol \<times> nat) list" where
  "mozjs_parse_row_246 =
    [(mozjs_sym_import, 1333), (mozjs_sym_parenthesized_expression, 556),
     (mozjs_sym_expression, 786), (mozjs_sym_primary_expression, 693),
     (mozjs_sym_yield_expression, 743), (mozjs_sym_object, 793),
     (mozjs_sym_object_pattern, 1845), (mozjs_sym_array, 793),
     (mozjs_sym_array_pattern, 1845), (mozjs_sym_jsx_element, 743),
     (mozjs_sym_jsx_opening_element, 1158), (mozjs_sym_jsx_self_closing_element, 743),
     (mozjs_sym_class, 793), (mozjs_sym_function_expression, 793),
     (mozjs_sym_generator_function, 793), (mozjs_sym_arrow_function, 793),
     (mozjs_sym_call_expression, 793), (mozjs_sym_new_expression, 692),
     (mozjs_sym_await_expression, 743), (mozjs_sym_member_expression, 556),
     (mozjs_sym_subscript_expression, 556), (mozjs_sym_assignment_expression, 743),
     (mozjs_sym__augmented_assignment_lhs, 1146), (mozjs_sym_augmented_assignment_expression,
       743),
     (mozjs_sym__destructuring_pattern, 1845), (mozjs_sym_ternary_expression, 743),
     (mozjs_sym_binary_expression, 743), (mozjs_sym_unary_expression, 743),
     (mozjs_sym_update_expression, 743), (mozjs_sym_string, 793),
     (mozjs_sym_template_string, 793), (mozjs_sym_regex, 793),
     (mozjs_sym_meta_property, 793), (mozjs_sym_decorator, 1112),
     (mozjs_sym_formal_parameters, 1847), (mozjs_aux_sym_export_statement_repeat1, 1331),
     (mozjs_sym_identifier, 303), (mozjs_anon_sym_export, 305),
     (mozjs_anon_sym_LBRACE, 309), (mozjs_anon_sym_import, 315),
     (mozjs_anon_sym_let, 305), (mozjs_anon_sym_await, 319),
     (mozjs_anon_sym_LPAREN, 37), (mozjs_anon_sym_yield, 57),
     (mozjs_anon_sym_LBRACK, 59), (mozjs_anon_sym_LT, 61),
     (mozjs_anon_sym_DQUOTE, 63), (mozjs_anon_sym_SQUOTE, 65),
     (mozjs_anon_sym_class, 336), (mozjs_anon_sym_async, 338),
     (mozjs_anon_sym_function, 340), (mozjs_anon_sym_new, 73),
     (mozjs_anon_sym_PLUS, 75), (mozjs_anon_sym_DASH, 75),
     (mozjs_anon_sym_SLASH, 77), (mozjs_anon_sym_BANG, 79),
     (mozjs_anon_sym_TILDE, 79), (mozjs_anon_sym_typeof, 75),
     (mozjs_anon_sym_void, 75), (mozjs_anon_sym_delete, 75),
     (mozjs_anon_sym_PLUS_PLUS, 81), (mozjs_anon_sym_DASH_DASH, 81),
     (mozjs_sym_comment, 5), (mozjs_anon_sym_BQUOTE, 83),
     (mozjs_sym_number, 85), (mozjs_sym_private_property_identifier, 358),
     (mozjs_sym_this, 89), (mozjs_sym_super, 89),
     (mozjs_sym_true, 89), (mozjs_sym_false, 89),
     (mozjs_sym_null, 89), (mozjs_sym_undefined, 91),
     (mozjs_anon_sym_AT, 93), (mozjs_anon_sym_static, 305),
     (mozjs_anon_sym_get, 305), (mozjs_anon_sym_set, 305),
     (mozjs_sym_html_comment, 5)]"

definition mozjs_parse_row_247 :: "(TSSymbol \<times> nat) list" where
  "mozjs_parse_row_247 =
    [(mozjs_sym_import, 1340), (mozjs_sym_parenthesized_expression, 525),
     (mozjs_sym_expression, 672), (mozjs_sym_primary_expression, 584),
     (mozjs_sym_yield_expression, 638), (mozjs_sym_object, 645),
     (mozjs_sym_object_pattern, 1827), (mozjs_sym_array, 645),
     (mozjs_sym_array_pattern, 1827), (mozjs_sym_jsx_element, 638),
     (mozjs_sym_jsx_opening_element, 1152), (mozjs_sym_jsx_self_closing_element, 638),
     (mozjs_sym_class, 645), (mozjs_sym_function_expression, 645),
     (mozjs_sym_generator_function, 645), (mozjs_sym_arrow_function, 645),
     (mozjs_sym_call_expression, 645), (mozjs_sym_new_expression, 587),
     (mozjs_sym_await_expression, 638), (mozjs_sym_member_expression, 525),
     (mozjs_sym_subscript_expression, 525), (mozjs_sym_assignment_expression, 638),
     (mozjs_sym__augmented_assignment_lhs, 1145), (mozjs_sym_augmented_assignment_expression,
       638),
     (mozjs_sym__destructuring_pattern, 1827), (mozjs_sym_ternary_expression, 638),
     (mozjs_sym_binary_expression, 638), (mozjs_sym_unary_expression, 638),
     (mozjs_sym_update_expression, 638), (mozjs_sym_string, 645),
     (mozjs_sym_template_string, 645), (mozjs_sym_regex, 645),
     (mozjs_sym_meta_property, 645), (mozjs_sym_decorator, 1112),
     (mozjs_sym_formal_parameters, 1777), (mozjs_aux_sym_export_statement_repeat1, 1395),
     (mozjs_sym_identifier, 384), (mozjs_anon_sym_export, 386),
     (mozjs_anon_sym_LBRACE, 388), (mozjs_anon_sym_import, 390),
     (mozjs_anon_sym_let, 386), (mozjs_anon_sym_await, 392),
     (mozjs_anon_sym_LPAREN, 657), (mozjs_anon_sym_yield, 397),
     (mozjs_anon_sym_LBRACK, 661), (mozjs_anon_sym_LT, 827),
     (mozjs_anon_sym_DQUOTE, 407), (mozjs_anon_sym_SQUOTE, 409),
     (mozjs_anon_sym_class, 411), (mozjs_anon_sym_async, 413),
     (mozjs_anon_sym_function, 415), (mozjs_anon_sym_new, 419),
     (mozjs_anon_sym_PLUS, 427), (mozjs_anon_sym_DASH, 427),
     (mozjs_anon_sym_SLASH, 665), (mozjs_anon_sym_BANG, 429),
     (mozjs_anon_sym_TILDE, 429), (mozjs_anon_sym_typeof, 427),
     (mozjs_anon_sym_void, 427), (mozjs_anon_sym_delete, 427),
     (mozjs_anon_sym_PLUS_PLUS, 667), (mozjs_anon_sym_DASH_DASH, 667),
     (mozjs_sym_comment, 5), (mozjs_anon_sym_BQUOTE, 669),
     (mozjs_sym_number, 437), (mozjs_sym_private_property_identifier, 439),
     (mozjs_sym_this, 441), (mozjs_sym_super, 441),
     (mozjs_sym_true, 441), (mozjs_sym_false, 441),
     (mozjs_sym_null, 441), (mozjs_sym_undefined, 443),
     (mozjs_anon_sym_AT, 93), (mozjs_anon_sym_static, 386),
     (mozjs_anon_sym_get, 386), (mozjs_anon_sym_set, 386),
     (mozjs_sym_html_comment, 5)]"

definition mozjs_parse_row_248 :: "(TSSymbol \<times> nat) list" where
  "mozjs_parse_row_248 =
    [(mozjs_sym_import, 1340), (mozjs_sym_parenthesized_expression, 525),
     (mozjs_sym_expression, 673), (mozjs_sym_primary_expression, 584),
     (mozjs_sym_yield_expression, 638), (mozjs_sym_object, 645),
     (mozjs_sym_object_pattern, 1827), (mozjs_sym_array, 645),
     (mozjs_sym_array_pattern, 1827), (mozjs_sym_jsx_element, 638),
     (mozjs_sym_jsx_opening_element, 1152), (mozjs_sym_jsx_self_closing_element, 638),
     (mozjs_sym_class, 645), (mozjs_sym_function_expression, 645),
     (mozjs_sym_generator_function, 645), (mozjs_sym_arrow_function, 645),
     (mozjs_sym_call_expression, 645), (mozjs_sym_new_expression, 587),
     (mozjs_sym_await_expression, 638), (mozjs_sym_member_expression, 525),
     (mozjs_sym_subscript_expression, 525), (mozjs_sym_assignment_expression, 638),
     (mozjs_sym__augmented_assignment_lhs, 1145), (mozjs_sym_augmented_assignment_expression,
       638),
     (mozjs_sym__destructuring_pattern, 1827), (mozjs_sym_ternary_expression, 638),
     (mozjs_sym_binary_expression, 638), (mozjs_sym_unary_expression, 638),
     (mozjs_sym_update_expression, 638), (mozjs_sym_string, 645),
     (mozjs_sym_template_string, 645), (mozjs_sym_regex, 645),
     (mozjs_sym_meta_property, 645), (mozjs_sym_decorator, 1112),
     (mozjs_sym_formal_parameters, 1777), (mozjs_aux_sym_export_statement_repeat1, 1395),
     (mozjs_sym_identifier, 384), (mozjs_anon_sym_export, 386),
     (mozjs_anon_sym_LBRACE, 388), (mozjs_anon_sym_import, 390),
     (mozjs_anon_sym_let, 386), (mozjs_anon_sym_await, 392),
     (mozjs_anon_sym_LPAREN, 657), (mozjs_anon_sym_yield, 397),
     (mozjs_anon_sym_LBRACK, 661), (mozjs_anon_sym_LT, 827),
     (mozjs_anon_sym_DQUOTE, 407), (mozjs_anon_sym_SQUOTE, 409),
     (mozjs_anon_sym_class, 411), (mozjs_anon_sym_async, 413),
     (mozjs_anon_sym_function, 415), (mozjs_anon_sym_new, 419),
     (mozjs_anon_sym_PLUS, 427), (mozjs_anon_sym_DASH, 427),
     (mozjs_anon_sym_SLASH, 665), (mozjs_anon_sym_BANG, 429),
     (mozjs_anon_sym_TILDE, 429), (mozjs_anon_sym_typeof, 427),
     (mozjs_anon_sym_void, 427), (mozjs_anon_sym_delete, 427),
     (mozjs_anon_sym_PLUS_PLUS, 667), (mozjs_anon_sym_DASH_DASH, 667),
     (mozjs_sym_comment, 5), (mozjs_anon_sym_BQUOTE, 669),
     (mozjs_sym_number, 437), (mozjs_sym_private_property_identifier, 439),
     (mozjs_sym_this, 441), (mozjs_sym_super, 441),
     (mozjs_sym_true, 441), (mozjs_sym_false, 441),
     (mozjs_sym_null, 441), (mozjs_sym_undefined, 443),
     (mozjs_anon_sym_AT, 93), (mozjs_anon_sym_static, 386),
     (mozjs_anon_sym_get, 386), (mozjs_anon_sym_set, 386),
     (mozjs_sym_html_comment, 5)]"

definition mozjs_parse_row_249 :: "(TSSymbol \<times> nat) list" where
  "mozjs_parse_row_249 =
    [(mozjs_sym_import, 1340), (mozjs_sym_parenthesized_expression, 525),
     (mozjs_sym_expression, 681), (mozjs_sym_primary_expression, 584),
     (mozjs_sym_yield_expression, 638), (mozjs_sym_object, 645),
     (mozjs_sym_object_pattern, 1827), (mozjs_sym_array, 645),
     (mozjs_sym_array_pattern, 1827), (mozjs_sym_jsx_element, 638),
     (mozjs_sym_jsx_opening_element, 1152), (mozjs_sym_jsx_self_closing_element, 638),
     (mozjs_sym_class, 645), (mozjs_sym_function_expression, 645),
     (mozjs_sym_generator_function, 645), (mozjs_sym_arrow_function, 645),
     (mozjs_sym_call_expression, 645), (mozjs_sym_new_expression, 587),
     (mozjs_sym_await_expression, 638), (mozjs_sym_member_expression, 525),
     (mozjs_sym_subscript_expression, 525), (mozjs_sym_assignment_expression, 638),
     (mozjs_sym__augmented_assignment_lhs, 1145), (mozjs_sym_augmented_assignment_expression,
       638),
     (mozjs_sym__destructuring_pattern, 1827), (mozjs_sym_ternary_expression, 638),
     (mozjs_sym_binary_expression, 638), (mozjs_sym_unary_expression, 638),
     (mozjs_sym_update_expression, 638), (mozjs_sym_string, 645),
     (mozjs_sym_template_string, 645), (mozjs_sym_regex, 645),
     (mozjs_sym_meta_property, 645), (mozjs_sym_decorator, 1112),
     (mozjs_sym_formal_parameters, 1777), (mozjs_aux_sym_export_statement_repeat1, 1395),
     (mozjs_sym_identifier, 384), (mozjs_anon_sym_export, 386),
     (mozjs_anon_sym_LBRACE, 388), (mozjs_anon_sym_import, 390),
     (mozjs_anon_sym_let, 386), (mozjs_anon_sym_await, 392),
     (mozjs_anon_sym_LPAREN, 657), (mozjs_anon_sym_yield, 397),
     (mozjs_anon_sym_LBRACK, 661), (mozjs_anon_sym_LT, 827),
     (mozjs_anon_sym_DQUOTE, 407), (mozjs_anon_sym_SQUOTE, 409),
     (mozjs_anon_sym_class, 411), (mozjs_anon_sym_async, 413),
     (mozjs_anon_sym_function, 415), (mozjs_anon_sym_new, 419),
     (mozjs_anon_sym_PLUS, 427), (mozjs_anon_sym_DASH, 427),
     (mozjs_anon_sym_SLASH, 665), (mozjs_anon_sym_BANG, 429),
     (mozjs_anon_sym_TILDE, 429), (mozjs_anon_sym_typeof, 427),
     (mozjs_anon_sym_void, 427), (mozjs_anon_sym_delete, 427),
     (mozjs_anon_sym_PLUS_PLUS, 667), (mozjs_anon_sym_DASH_DASH, 667),
     (mozjs_sym_comment, 5), (mozjs_anon_sym_BQUOTE, 669),
     (mozjs_sym_number, 437), (mozjs_sym_private_property_identifier, 439),
     (mozjs_sym_this, 441), (mozjs_sym_super, 441),
     (mozjs_sym_true, 441), (mozjs_sym_false, 441),
     (mozjs_sym_null, 441), (mozjs_sym_undefined, 443),
     (mozjs_anon_sym_AT, 93), (mozjs_anon_sym_static, 386),
     (mozjs_anon_sym_get, 386), (mozjs_anon_sym_set, 386),
     (mozjs_sym_html_comment, 5)]"

definition mozjs_parse_row_250 :: "(TSSymbol \<times> nat) list" where
  "mozjs_parse_row_250 =
    [(mozjs_sym_import, 1340), (mozjs_sym_parenthesized_expression, 525),
     (mozjs_sym_expression, 658), (mozjs_sym_primary_expression, 584),
     (mozjs_sym_yield_expression, 638), (mozjs_sym_object, 645),
     (mozjs_sym_object_pattern, 1827), (mozjs_sym_array, 645),
     (mozjs_sym_array_pattern, 1827), (mozjs_sym_jsx_element, 638),
     (mozjs_sym_jsx_opening_element, 1152), (mozjs_sym_jsx_self_closing_element, 638),
     (mozjs_sym_class, 645), (mozjs_sym_function_expression, 645),
     (mozjs_sym_generator_function, 645), (mozjs_sym_arrow_function, 645),
     (mozjs_sym_call_expression, 645), (mozjs_sym_new_expression, 587),
     (mozjs_sym_await_expression, 638), (mozjs_sym_member_expression, 525),
     (mozjs_sym_subscript_expression, 525), (mozjs_sym_assignment_expression, 638),
     (mozjs_sym__augmented_assignment_lhs, 1145), (mozjs_sym_augmented_assignment_expression,
       638),
     (mozjs_sym__destructuring_pattern, 1827), (mozjs_sym_ternary_expression, 638),
     (mozjs_sym_binary_expression, 638), (mozjs_sym_unary_expression, 638),
     (mozjs_sym_update_expression, 638), (mozjs_sym_string, 645),
     (mozjs_sym_template_string, 645), (mozjs_sym_regex, 645),
     (mozjs_sym_meta_property, 645), (mozjs_sym_decorator, 1112),
     (mozjs_sym_formal_parameters, 1777), (mozjs_aux_sym_export_statement_repeat1, 1395),
     (mozjs_sym_identifier, 384), (mozjs_anon_sym_export, 386),
     (mozjs_anon_sym_LBRACE, 388), (mozjs_anon_sym_import, 390),
     (mozjs_anon_sym_let, 386), (mozjs_anon_sym_await, 392),
     (mozjs_anon_sym_LPAREN, 657), (mozjs_anon_sym_yield, 397),
     (mozjs_anon_sym_LBRACK, 661), (mozjs_anon_sym_LT, 827),
     (mozjs_anon_sym_DQUOTE, 407), (mozjs_anon_sym_SQUOTE, 409),
     (mozjs_anon_sym_class, 411), (mozjs_anon_sym_async, 413),
     (mozjs_anon_sym_function, 415), (mozjs_anon_sym_new, 419),
     (mozjs_anon_sym_PLUS, 427), (mozjs_anon_sym_DASH, 427),
     (mozjs_anon_sym_SLASH, 665), (mozjs_anon_sym_BANG, 429),
     (mozjs_anon_sym_TILDE, 429), (mozjs_anon_sym_typeof, 427),
     (mozjs_anon_sym_void, 427), (mozjs_anon_sym_delete, 427),
     (mozjs_anon_sym_PLUS_PLUS, 667), (mozjs_anon_sym_DASH_DASH, 667),
     (mozjs_sym_comment, 5), (mozjs_anon_sym_BQUOTE, 669),
     (mozjs_sym_number, 437), (mozjs_sym_private_property_identifier, 439),
     (mozjs_sym_this, 441), (mozjs_sym_super, 441),
     (mozjs_sym_true, 441), (mozjs_sym_false, 441),
     (mozjs_sym_null, 441), (mozjs_sym_undefined, 443),
     (mozjs_anon_sym_AT, 93), (mozjs_anon_sym_static, 386),
     (mozjs_anon_sym_get, 386), (mozjs_anon_sym_set, 386),
     (mozjs_sym_html_comment, 5)]"

definition mozjs_parse_row_251 :: "(TSSymbol \<times> nat) list" where
  "mozjs_parse_row_251 =
    [(mozjs_sym_import, 1340), (mozjs_sym_parenthesized_expression, 525),
     (mozjs_sym_expression, 690), (mozjs_sym_primary_expression, 584),
     (mozjs_sym_yield_expression, 638), (mozjs_sym_object, 645),
     (mozjs_sym_object_pattern, 1827), (mozjs_sym_array, 645),
     (mozjs_sym_array_pattern, 1827), (mozjs_sym_jsx_element, 638),
     (mozjs_sym_jsx_opening_element, 1152), (mozjs_sym_jsx_self_closing_element, 638),
     (mozjs_sym_class, 645), (mozjs_sym_function_expression, 645),
     (mozjs_sym_generator_function, 645), (mozjs_sym_arrow_function, 645),
     (mozjs_sym_call_expression, 645), (mozjs_sym_new_expression, 587),
     (mozjs_sym_await_expression, 638), (mozjs_sym_member_expression, 525),
     (mozjs_sym_subscript_expression, 525), (mozjs_sym_assignment_expression, 638),
     (mozjs_sym__augmented_assignment_lhs, 1145), (mozjs_sym_augmented_assignment_expression,
       638),
     (mozjs_sym__destructuring_pattern, 1827), (mozjs_sym_ternary_expression, 638),
     (mozjs_sym_binary_expression, 638), (mozjs_sym_unary_expression, 638),
     (mozjs_sym_update_expression, 638), (mozjs_sym_string, 645),
     (mozjs_sym_template_string, 645), (mozjs_sym_regex, 645),
     (mozjs_sym_meta_property, 645), (mozjs_sym_decorator, 1112),
     (mozjs_sym_formal_parameters, 1777), (mozjs_aux_sym_export_statement_repeat1, 1395),
     (mozjs_sym_identifier, 384), (mozjs_anon_sym_export, 386),
     (mozjs_anon_sym_LBRACE, 388), (mozjs_anon_sym_import, 390),
     (mozjs_anon_sym_let, 386), (mozjs_anon_sym_await, 392),
     (mozjs_anon_sym_LPAREN, 657), (mozjs_anon_sym_yield, 397),
     (mozjs_anon_sym_LBRACK, 661), (mozjs_anon_sym_LT, 827),
     (mozjs_anon_sym_DQUOTE, 407), (mozjs_anon_sym_SQUOTE, 409),
     (mozjs_anon_sym_class, 411), (mozjs_anon_sym_async, 413),
     (mozjs_anon_sym_function, 415), (mozjs_anon_sym_new, 419),
     (mozjs_anon_sym_PLUS, 427), (mozjs_anon_sym_DASH, 427),
     (mozjs_anon_sym_SLASH, 665), (mozjs_anon_sym_BANG, 429),
     (mozjs_anon_sym_TILDE, 429), (mozjs_anon_sym_typeof, 427),
     (mozjs_anon_sym_void, 427), (mozjs_anon_sym_delete, 427),
     (mozjs_anon_sym_PLUS_PLUS, 667), (mozjs_anon_sym_DASH_DASH, 667),
     (mozjs_sym_comment, 5), (mozjs_anon_sym_BQUOTE, 669),
     (mozjs_sym_number, 437), (mozjs_sym_private_property_identifier, 439),
     (mozjs_sym_this, 441), (mozjs_sym_super, 441),
     (mozjs_sym_true, 441), (mozjs_sym_false, 441),
     (mozjs_sym_null, 441), (mozjs_sym_undefined, 443),
     (mozjs_anon_sym_AT, 93), (mozjs_anon_sym_static, 386),
     (mozjs_anon_sym_get, 386), (mozjs_anon_sym_set, 386),
     (mozjs_sym_html_comment, 5)]"

definition mozjs_parse_row_252 :: "(TSSymbol \<times> nat) list" where
  "mozjs_parse_row_252 =
    [(mozjs_sym_import, 1340), (mozjs_sym_parenthesized_expression, 525),
     (mozjs_sym_expression, 659), (mozjs_sym_primary_expression, 584),
     (mozjs_sym_yield_expression, 638), (mozjs_sym_object, 645),
     (mozjs_sym_object_pattern, 1827), (mozjs_sym_array, 645),
     (mozjs_sym_array_pattern, 1827), (mozjs_sym_jsx_element, 638),
     (mozjs_sym_jsx_opening_element, 1152), (mozjs_sym_jsx_self_closing_element, 638),
     (mozjs_sym_class, 645), (mozjs_sym_function_expression, 645),
     (mozjs_sym_generator_function, 645), (mozjs_sym_arrow_function, 645),
     (mozjs_sym_call_expression, 645), (mozjs_sym_new_expression, 587),
     (mozjs_sym_await_expression, 638), (mozjs_sym_member_expression, 525),
     (mozjs_sym_subscript_expression, 525), (mozjs_sym_assignment_expression, 638),
     (mozjs_sym__augmented_assignment_lhs, 1145), (mozjs_sym_augmented_assignment_expression,
       638),
     (mozjs_sym__destructuring_pattern, 1827), (mozjs_sym_ternary_expression, 638),
     (mozjs_sym_binary_expression, 638), (mozjs_sym_unary_expression, 638),
     (mozjs_sym_update_expression, 638), (mozjs_sym_string, 645),
     (mozjs_sym_template_string, 645), (mozjs_sym_regex, 645),
     (mozjs_sym_meta_property, 645), (mozjs_sym_decorator, 1112),
     (mozjs_sym_formal_parameters, 1777), (mozjs_aux_sym_export_statement_repeat1, 1395),
     (mozjs_sym_identifier, 384), (mozjs_anon_sym_export, 386),
     (mozjs_anon_sym_LBRACE, 388), (mozjs_anon_sym_import, 390),
     (mozjs_anon_sym_let, 386), (mozjs_anon_sym_await, 392),
     (mozjs_anon_sym_LPAREN, 657), (mozjs_anon_sym_yield, 397),
     (mozjs_anon_sym_LBRACK, 661), (mozjs_anon_sym_LT, 827),
     (mozjs_anon_sym_DQUOTE, 407), (mozjs_anon_sym_SQUOTE, 409),
     (mozjs_anon_sym_class, 411), (mozjs_anon_sym_async, 413),
     (mozjs_anon_sym_function, 415), (mozjs_anon_sym_new, 419),
     (mozjs_anon_sym_PLUS, 427), (mozjs_anon_sym_DASH, 427),
     (mozjs_anon_sym_SLASH, 665), (mozjs_anon_sym_BANG, 429),
     (mozjs_anon_sym_TILDE, 429), (mozjs_anon_sym_typeof, 427),
     (mozjs_anon_sym_void, 427), (mozjs_anon_sym_delete, 427),
     (mozjs_anon_sym_PLUS_PLUS, 667), (mozjs_anon_sym_DASH_DASH, 667),
     (mozjs_sym_comment, 5), (mozjs_anon_sym_BQUOTE, 669),
     (mozjs_sym_number, 437), (mozjs_sym_private_property_identifier, 439),
     (mozjs_sym_this, 441), (mozjs_sym_super, 441),
     (mozjs_sym_true, 441), (mozjs_sym_false, 441),
     (mozjs_sym_null, 441), (mozjs_sym_undefined, 443),
     (mozjs_anon_sym_AT, 93), (mozjs_anon_sym_static, 386),
     (mozjs_anon_sym_get, 386), (mozjs_anon_sym_set, 386),
     (mozjs_sym_html_comment, 5)]"

definition mozjs_parse_row_253 :: "(TSSymbol \<times> nat) list" where
  "mozjs_parse_row_253 =
    [(mozjs_sym_import, 1340), (mozjs_sym_parenthesized_expression, 525),
     (mozjs_sym_expression, 660), (mozjs_sym_primary_expression, 584),
     (mozjs_sym_yield_expression, 638), (mozjs_sym_object, 645),
     (mozjs_sym_object_pattern, 1827), (mozjs_sym_array, 645),
     (mozjs_sym_array_pattern, 1827), (mozjs_sym_jsx_element, 638),
     (mozjs_sym_jsx_opening_element, 1152), (mozjs_sym_jsx_self_closing_element, 638),
     (mozjs_sym_class, 645), (mozjs_sym_function_expression, 645),
     (mozjs_sym_generator_function, 645), (mozjs_sym_arrow_function, 645),
     (mozjs_sym_call_expression, 645), (mozjs_sym_new_expression, 587),
     (mozjs_sym_await_expression, 638), (mozjs_sym_member_expression, 525),
     (mozjs_sym_subscript_expression, 525), (mozjs_sym_assignment_expression, 638),
     (mozjs_sym__augmented_assignment_lhs, 1145), (mozjs_sym_augmented_assignment_expression,
       638),
     (mozjs_sym__destructuring_pattern, 1827), (mozjs_sym_ternary_expression, 638),
     (mozjs_sym_binary_expression, 638), (mozjs_sym_unary_expression, 638),
     (mozjs_sym_update_expression, 638), (mozjs_sym_string, 645),
     (mozjs_sym_template_string, 645), (mozjs_sym_regex, 645),
     (mozjs_sym_meta_property, 645), (mozjs_sym_decorator, 1112),
     (mozjs_sym_formal_parameters, 1777), (mozjs_aux_sym_export_statement_repeat1, 1395),
     (mozjs_sym_identifier, 384), (mozjs_anon_sym_export, 386),
     (mozjs_anon_sym_LBRACE, 388), (mozjs_anon_sym_import, 390),
     (mozjs_anon_sym_let, 386), (mozjs_anon_sym_await, 392),
     (mozjs_anon_sym_LPAREN, 657), (mozjs_anon_sym_yield, 397),
     (mozjs_anon_sym_LBRACK, 661), (mozjs_anon_sym_LT, 827),
     (mozjs_anon_sym_DQUOTE, 407), (mozjs_anon_sym_SQUOTE, 409),
     (mozjs_anon_sym_class, 411), (mozjs_anon_sym_async, 413),
     (mozjs_anon_sym_function, 415), (mozjs_anon_sym_new, 419),
     (mozjs_anon_sym_PLUS, 427), (mozjs_anon_sym_DASH, 427),
     (mozjs_anon_sym_SLASH, 665), (mozjs_anon_sym_BANG, 429),
     (mozjs_anon_sym_TILDE, 429), (mozjs_anon_sym_typeof, 427),
     (mozjs_anon_sym_void, 427), (mozjs_anon_sym_delete, 427),
     (mozjs_anon_sym_PLUS_PLUS, 667), (mozjs_anon_sym_DASH_DASH, 667),
     (mozjs_sym_comment, 5), (mozjs_anon_sym_BQUOTE, 669),
     (mozjs_sym_number, 437), (mozjs_sym_private_property_identifier, 439),
     (mozjs_sym_this, 441), (mozjs_sym_super, 441),
     (mozjs_sym_true, 441), (mozjs_sym_false, 441),
     (mozjs_sym_null, 441), (mozjs_sym_undefined, 443),
     (mozjs_anon_sym_AT, 93), (mozjs_anon_sym_static, 386),
     (mozjs_anon_sym_get, 386), (mozjs_anon_sym_set, 386),
     (mozjs_sym_html_comment, 5)]"

definition mozjs_parse_row_254 :: "(TSSymbol \<times> nat) list" where
  "mozjs_parse_row_254 =
    [(mozjs_sym_import, 1340), (mozjs_sym_parenthesized_expression, 525),
     (mozjs_sym_expression, 661), (mozjs_sym_primary_expression, 584),
     (mozjs_sym_yield_expression, 638), (mozjs_sym_object, 645),
     (mozjs_sym_object_pattern, 1827), (mozjs_sym_array, 645),
     (mozjs_sym_array_pattern, 1827), (mozjs_sym_jsx_element, 638),
     (mozjs_sym_jsx_opening_element, 1152), (mozjs_sym_jsx_self_closing_element, 638),
     (mozjs_sym_class, 645), (mozjs_sym_function_expression, 645),
     (mozjs_sym_generator_function, 645), (mozjs_sym_arrow_function, 645),
     (mozjs_sym_call_expression, 645), (mozjs_sym_new_expression, 587),
     (mozjs_sym_await_expression, 638), (mozjs_sym_member_expression, 525),
     (mozjs_sym_subscript_expression, 525), (mozjs_sym_assignment_expression, 638),
     (mozjs_sym__augmented_assignment_lhs, 1145), (mozjs_sym_augmented_assignment_expression,
       638),
     (mozjs_sym__destructuring_pattern, 1827), (mozjs_sym_ternary_expression, 638),
     (mozjs_sym_binary_expression, 638), (mozjs_sym_unary_expression, 638),
     (mozjs_sym_update_expression, 638), (mozjs_sym_string, 645),
     (mozjs_sym_template_string, 645), (mozjs_sym_regex, 645),
     (mozjs_sym_meta_property, 645), (mozjs_sym_decorator, 1112),
     (mozjs_sym_formal_parameters, 1777), (mozjs_aux_sym_export_statement_repeat1, 1395),
     (mozjs_sym_identifier, 384), (mozjs_anon_sym_export, 386),
     (mozjs_anon_sym_LBRACE, 388), (mozjs_anon_sym_import, 390),
     (mozjs_anon_sym_let, 386), (mozjs_anon_sym_await, 392),
     (mozjs_anon_sym_LPAREN, 657), (mozjs_anon_sym_yield, 397),
     (mozjs_anon_sym_LBRACK, 661), (mozjs_anon_sym_LT, 827),
     (mozjs_anon_sym_DQUOTE, 407), (mozjs_anon_sym_SQUOTE, 409),
     (mozjs_anon_sym_class, 411), (mozjs_anon_sym_async, 413),
     (mozjs_anon_sym_function, 415), (mozjs_anon_sym_new, 419),
     (mozjs_anon_sym_PLUS, 427), (mozjs_anon_sym_DASH, 427),
     (mozjs_anon_sym_SLASH, 665), (mozjs_anon_sym_BANG, 429),
     (mozjs_anon_sym_TILDE, 429), (mozjs_anon_sym_typeof, 427),
     (mozjs_anon_sym_void, 427), (mozjs_anon_sym_delete, 427),
     (mozjs_anon_sym_PLUS_PLUS, 667), (mozjs_anon_sym_DASH_DASH, 667),
     (mozjs_sym_comment, 5), (mozjs_anon_sym_BQUOTE, 669),
     (mozjs_sym_number, 437), (mozjs_sym_private_property_identifier, 439),
     (mozjs_sym_this, 441), (mozjs_sym_super, 441),
     (mozjs_sym_true, 441), (mozjs_sym_false, 441),
     (mozjs_sym_null, 441), (mozjs_sym_undefined, 443),
     (mozjs_anon_sym_AT, 93), (mozjs_anon_sym_static, 386),
     (mozjs_anon_sym_get, 386), (mozjs_anon_sym_set, 386),
     (mozjs_sym_html_comment, 5)]"

definition mozjs_parse_row_255 :: "(TSSymbol \<times> nat) list" where
  "mozjs_parse_row_255 =
    [(mozjs_sym_import, 1340), (mozjs_sym_parenthesized_expression, 525),
     (mozjs_sym_expression, 662), (mozjs_sym_primary_expression, 584),
     (mozjs_sym_yield_expression, 638), (mozjs_sym_object, 645),
     (mozjs_sym_object_pattern, 1827), (mozjs_sym_array, 645),
     (mozjs_sym_array_pattern, 1827), (mozjs_sym_jsx_element, 638),
     (mozjs_sym_jsx_opening_element, 1152), (mozjs_sym_jsx_self_closing_element, 638),
     (mozjs_sym_class, 645), (mozjs_sym_function_expression, 645),
     (mozjs_sym_generator_function, 645), (mozjs_sym_arrow_function, 645),
     (mozjs_sym_call_expression, 645), (mozjs_sym_new_expression, 587),
     (mozjs_sym_await_expression, 638), (mozjs_sym_member_expression, 525),
     (mozjs_sym_subscript_expression, 525), (mozjs_sym_assignment_expression, 638),
     (mozjs_sym__augmented_assignment_lhs, 1145), (mozjs_sym_augmented_assignment_expression,
       638),
     (mozjs_sym__destructuring_pattern, 1827), (mozjs_sym_ternary_expression, 638),
     (mozjs_sym_binary_expression, 638), (mozjs_sym_unary_expression, 638),
     (mozjs_sym_update_expression, 638), (mozjs_sym_string, 645),
     (mozjs_sym_template_string, 645), (mozjs_sym_regex, 645),
     (mozjs_sym_meta_property, 645), (mozjs_sym_decorator, 1112),
     (mozjs_sym_formal_parameters, 1777), (mozjs_aux_sym_export_statement_repeat1, 1395),
     (mozjs_sym_identifier, 384), (mozjs_anon_sym_export, 386),
     (mozjs_anon_sym_LBRACE, 388), (mozjs_anon_sym_import, 390),
     (mozjs_anon_sym_let, 386), (mozjs_anon_sym_await, 392),
     (mozjs_anon_sym_LPAREN, 657), (mozjs_anon_sym_yield, 397),
     (mozjs_anon_sym_LBRACK, 661), (mozjs_anon_sym_LT, 827),
     (mozjs_anon_sym_DQUOTE, 407), (mozjs_anon_sym_SQUOTE, 409),
     (mozjs_anon_sym_class, 411), (mozjs_anon_sym_async, 413),
     (mozjs_anon_sym_function, 415), (mozjs_anon_sym_new, 419),
     (mozjs_anon_sym_PLUS, 427), (mozjs_anon_sym_DASH, 427),
     (mozjs_anon_sym_SLASH, 665), (mozjs_anon_sym_BANG, 429),
     (mozjs_anon_sym_TILDE, 429), (mozjs_anon_sym_typeof, 427),
     (mozjs_anon_sym_void, 427), (mozjs_anon_sym_delete, 427),
     (mozjs_anon_sym_PLUS_PLUS, 667), (mozjs_anon_sym_DASH_DASH, 667),
     (mozjs_sym_comment, 5), (mozjs_anon_sym_BQUOTE, 669),
     (mozjs_sym_number, 437), (mozjs_sym_private_property_identifier, 439),
     (mozjs_sym_this, 441), (mozjs_sym_super, 441),
     (mozjs_sym_true, 441), (mozjs_sym_false, 441),
     (mozjs_sym_null, 441), (mozjs_sym_undefined, 443),
     (mozjs_anon_sym_AT, 93), (mozjs_anon_sym_static, 386),
     (mozjs_anon_sym_get, 386), (mozjs_anon_sym_set, 386),
     (mozjs_sym_html_comment, 5)]"

definition mozjs_parse_row_256 :: "(TSSymbol \<times> nat) list" where
  "mozjs_parse_row_256 =
    [(mozjs_sym_import, 1340), (mozjs_sym_parenthesized_expression, 525),
     (mozjs_sym_expression, 663), (mozjs_sym_primary_expression, 584),
     (mozjs_sym_yield_expression, 638), (mozjs_sym_object, 645),
     (mozjs_sym_object_pattern, 1827), (mozjs_sym_array, 645),
     (mozjs_sym_array_pattern, 1827), (mozjs_sym_jsx_element, 638),
     (mozjs_sym_jsx_opening_element, 1152), (mozjs_sym_jsx_self_closing_element, 638),
     (mozjs_sym_class, 645), (mozjs_sym_function_expression, 645),
     (mozjs_sym_generator_function, 645), (mozjs_sym_arrow_function, 645),
     (mozjs_sym_call_expression, 645), (mozjs_sym_new_expression, 587),
     (mozjs_sym_await_expression, 638), (mozjs_sym_member_expression, 525),
     (mozjs_sym_subscript_expression, 525), (mozjs_sym_assignment_expression, 638),
     (mozjs_sym__augmented_assignment_lhs, 1145), (mozjs_sym_augmented_assignment_expression,
       638),
     (mozjs_sym__destructuring_pattern, 1827), (mozjs_sym_ternary_expression, 638),
     (mozjs_sym_binary_expression, 638), (mozjs_sym_unary_expression, 638),
     (mozjs_sym_update_expression, 638), (mozjs_sym_string, 645),
     (mozjs_sym_template_string, 645), (mozjs_sym_regex, 645),
     (mozjs_sym_meta_property, 645), (mozjs_sym_decorator, 1112),
     (mozjs_sym_formal_parameters, 1777), (mozjs_aux_sym_export_statement_repeat1, 1395),
     (mozjs_sym_identifier, 384), (mozjs_anon_sym_export, 386),
     (mozjs_anon_sym_LBRACE, 388), (mozjs_anon_sym_import, 390),
     (mozjs_anon_sym_let, 386), (mozjs_anon_sym_await, 392),
     (mozjs_anon_sym_LPAREN, 657), (mozjs_anon_sym_yield, 397),
     (mozjs_anon_sym_LBRACK, 661), (mozjs_anon_sym_LT, 827),
     (mozjs_anon_sym_DQUOTE, 407), (mozjs_anon_sym_SQUOTE, 409),
     (mozjs_anon_sym_class, 411), (mozjs_anon_sym_async, 413),
     (mozjs_anon_sym_function, 415), (mozjs_anon_sym_new, 419),
     (mozjs_anon_sym_PLUS, 427), (mozjs_anon_sym_DASH, 427),
     (mozjs_anon_sym_SLASH, 665), (mozjs_anon_sym_BANG, 429),
     (mozjs_anon_sym_TILDE, 429), (mozjs_anon_sym_typeof, 427),
     (mozjs_anon_sym_void, 427), (mozjs_anon_sym_delete, 427),
     (mozjs_anon_sym_PLUS_PLUS, 667), (mozjs_anon_sym_DASH_DASH, 667),
     (mozjs_sym_comment, 5), (mozjs_anon_sym_BQUOTE, 669),
     (mozjs_sym_number, 437), (mozjs_sym_private_property_identifier, 439),
     (mozjs_sym_this, 441), (mozjs_sym_super, 441),
     (mozjs_sym_true, 441), (mozjs_sym_false, 441),
     (mozjs_sym_null, 441), (mozjs_sym_undefined, 443),
     (mozjs_anon_sym_AT, 93), (mozjs_anon_sym_static, 386),
     (mozjs_anon_sym_get, 386), (mozjs_anon_sym_set, 386),
     (mozjs_sym_html_comment, 5)]"

definition mozjs_parse_row_257 :: "(TSSymbol \<times> nat) list" where
  "mozjs_parse_row_257 =
    [(mozjs_sym_import, 1340), (mozjs_sym_parenthesized_expression, 525),
     (mozjs_sym_expression, 664), (mozjs_sym_primary_expression, 584),
     (mozjs_sym_yield_expression, 638), (mozjs_sym_object, 645),
     (mozjs_sym_object_pattern, 1827), (mozjs_sym_array, 645),
     (mozjs_sym_array_pattern, 1827), (mozjs_sym_jsx_element, 638),
     (mozjs_sym_jsx_opening_element, 1152), (mozjs_sym_jsx_self_closing_element, 638),
     (mozjs_sym_class, 645), (mozjs_sym_function_expression, 645),
     (mozjs_sym_generator_function, 645), (mozjs_sym_arrow_function, 645),
     (mozjs_sym_call_expression, 645), (mozjs_sym_new_expression, 587),
     (mozjs_sym_await_expression, 638), (mozjs_sym_member_expression, 525),
     (mozjs_sym_subscript_expression, 525), (mozjs_sym_assignment_expression, 638),
     (mozjs_sym__augmented_assignment_lhs, 1145), (mozjs_sym_augmented_assignment_expression,
       638),
     (mozjs_sym__destructuring_pattern, 1827), (mozjs_sym_ternary_expression, 638),
     (mozjs_sym_binary_expression, 638), (mozjs_sym_unary_expression, 638),
     (mozjs_sym_update_expression, 638), (mozjs_sym_string, 645),
     (mozjs_sym_template_string, 645), (mozjs_sym_regex, 645),
     (mozjs_sym_meta_property, 645), (mozjs_sym_decorator, 1112),
     (mozjs_sym_formal_parameters, 1777), (mozjs_aux_sym_export_statement_repeat1, 1395),
     (mozjs_sym_identifier, 384), (mozjs_anon_sym_export, 386),
     (mozjs_anon_sym_LBRACE, 388), (mozjs_anon_sym_import, 390),
     (mozjs_anon_sym_let, 386), (mozjs_anon_sym_await, 392),
     (mozjs_anon_sym_LPAREN, 657), (mozjs_anon_sym_yield, 397),
     (mozjs_anon_sym_LBRACK, 661), (mozjs_anon_sym_LT, 827),
     (mozjs_anon_sym_DQUOTE, 407), (mozjs_anon_sym_SQUOTE, 409),
     (mozjs_anon_sym_class, 411), (mozjs_anon_sym_async, 413),
     (mozjs_anon_sym_function, 415), (mozjs_anon_sym_new, 419),
     (mozjs_anon_sym_PLUS, 427), (mozjs_anon_sym_DASH, 427),
     (mozjs_anon_sym_SLASH, 665), (mozjs_anon_sym_BANG, 429),
     (mozjs_anon_sym_TILDE, 429), (mozjs_anon_sym_typeof, 427),
     (mozjs_anon_sym_void, 427), (mozjs_anon_sym_delete, 427),
     (mozjs_anon_sym_PLUS_PLUS, 667), (mozjs_anon_sym_DASH_DASH, 667),
     (mozjs_sym_comment, 5), (mozjs_anon_sym_BQUOTE, 669),
     (mozjs_sym_number, 437), (mozjs_sym_private_property_identifier, 439),
     (mozjs_sym_this, 441), (mozjs_sym_super, 441),
     (mozjs_sym_true, 441), (mozjs_sym_false, 441),
     (mozjs_sym_null, 441), (mozjs_sym_undefined, 443),
     (mozjs_anon_sym_AT, 93), (mozjs_anon_sym_static, 386),
     (mozjs_anon_sym_get, 386), (mozjs_anon_sym_set, 386),
     (mozjs_sym_html_comment, 5)]"

definition mozjs_parse_row_258 :: "(TSSymbol \<times> nat) list" where
  "mozjs_parse_row_258 =
    [(mozjs_sym_import, 1340), (mozjs_sym_parenthesized_expression, 525),
     (mozjs_sym_expression, 666), (mozjs_sym_primary_expression, 584),
     (mozjs_sym_yield_expression, 638), (mozjs_sym_object, 645),
     (mozjs_sym_object_pattern, 1827), (mozjs_sym_array, 645),
     (mozjs_sym_array_pattern, 1827), (mozjs_sym_jsx_element, 638),
     (mozjs_sym_jsx_opening_element, 1152), (mozjs_sym_jsx_self_closing_element, 638),
     (mozjs_sym_class, 645), (mozjs_sym_function_expression, 645),
     (mozjs_sym_generator_function, 645), (mozjs_sym_arrow_function, 645),
     (mozjs_sym_call_expression, 645), (mozjs_sym_new_expression, 587),
     (mozjs_sym_await_expression, 638), (mozjs_sym_member_expression, 525),
     (mozjs_sym_subscript_expression, 525), (mozjs_sym_assignment_expression, 638),
     (mozjs_sym__augmented_assignment_lhs, 1145), (mozjs_sym_augmented_assignment_expression,
       638),
     (mozjs_sym__destructuring_pattern, 1827), (mozjs_sym_ternary_expression, 638),
     (mozjs_sym_binary_expression, 638), (mozjs_sym_unary_expression, 638),
     (mozjs_sym_update_expression, 638), (mozjs_sym_string, 645),
     (mozjs_sym_template_string, 645), (mozjs_sym_regex, 645),
     (mozjs_sym_meta_property, 645), (mozjs_sym_decorator, 1112),
     (mozjs_sym_formal_parameters, 1777), (mozjs_aux_sym_export_statement_repeat1, 1395),
     (mozjs_sym_identifier, 384), (mozjs_anon_sym_export, 386),
     (mozjs_anon_sym_LBRACE, 388), (mozjs_anon_sym_import, 390),
     (mozjs_anon_sym_let, 386), (mozjs_anon_sym_await, 392),
     (mozjs_anon_sym_LPAREN, 657), (mozjs_anon_sym_yield, 397),
     (mozjs_anon_sym_LBRACK, 661), (mozjs_anon_sym_LT, 827),
     (mozjs_anon_sym_DQUOTE, 407), (mozjs_anon_sym_SQUOTE, 409),
     (mozjs_anon_sym_class, 411), (mozjs_anon_sym_async, 413),
     (mozjs_anon_sym_function, 415), (mozjs_anon_sym_new, 419),
     (mozjs_anon_sym_PLUS, 427), (mozjs_anon_sym_DASH, 427),
     (mozjs_anon_sym_SLASH, 665), (mozjs_anon_sym_BANG, 429),
     (mozjs_anon_sym_TILDE, 429), (mozjs_anon_sym_typeof, 427),
     (mozjs_anon_sym_void, 427), (mozjs_anon_sym_delete, 427),
     (mozjs_anon_sym_PLUS_PLUS, 667), (mozjs_anon_sym_DASH_DASH, 667),
     (mozjs_sym_comment, 5), (mozjs_anon_sym_BQUOTE, 669),
     (mozjs_sym_number, 437), (mozjs_sym_private_property_identifier, 439),
     (mozjs_sym_this, 441), (mozjs_sym_super, 441),
     (mozjs_sym_true, 441), (mozjs_sym_false, 441),
     (mozjs_sym_null, 441), (mozjs_sym_undefined, 443),
     (mozjs_anon_sym_AT, 93), (mozjs_anon_sym_static, 386),
     (mozjs_anon_sym_get, 386), (mozjs_anon_sym_set, 386),
     (mozjs_sym_html_comment, 5)]"

definition mozjs_parse_row_259 :: "(TSSymbol \<times> nat) list" where
  "mozjs_parse_row_259 =
    [(mozjs_sym_import, 1340), (mozjs_sym_parenthesized_expression, 525),
     (mozjs_sym_expression, 668), (mozjs_sym_primary_expression, 584),
     (mozjs_sym_yield_expression, 638), (mozjs_sym_object, 645),
     (mozjs_sym_object_pattern, 1827), (mozjs_sym_array, 645),
     (mozjs_sym_array_pattern, 1827), (mozjs_sym_jsx_element, 638),
     (mozjs_sym_jsx_opening_element, 1152), (mozjs_sym_jsx_self_closing_element, 638),
     (mozjs_sym_class, 645), (mozjs_sym_function_expression, 645),
     (mozjs_sym_generator_function, 645), (mozjs_sym_arrow_function, 645),
     (mozjs_sym_call_expression, 645), (mozjs_sym_new_expression, 587),
     (mozjs_sym_await_expression, 638), (mozjs_sym_member_expression, 525),
     (mozjs_sym_subscript_expression, 525), (mozjs_sym_assignment_expression, 638),
     (mozjs_sym__augmented_assignment_lhs, 1145), (mozjs_sym_augmented_assignment_expression,
       638),
     (mozjs_sym__destructuring_pattern, 1827), (mozjs_sym_ternary_expression, 638),
     (mozjs_sym_binary_expression, 638), (mozjs_sym_unary_expression, 638),
     (mozjs_sym_update_expression, 638), (mozjs_sym_string, 645),
     (mozjs_sym_template_string, 645), (mozjs_sym_regex, 645),
     (mozjs_sym_meta_property, 645), (mozjs_sym_decorator, 1112),
     (mozjs_sym_formal_parameters, 1777), (mozjs_aux_sym_export_statement_repeat1, 1395),
     (mozjs_sym_identifier, 384), (mozjs_anon_sym_export, 386),
     (mozjs_anon_sym_LBRACE, 388), (mozjs_anon_sym_import, 390),
     (mozjs_anon_sym_let, 386), (mozjs_anon_sym_await, 392),
     (mozjs_anon_sym_LPAREN, 657), (mozjs_anon_sym_yield, 397),
     (mozjs_anon_sym_LBRACK, 661), (mozjs_anon_sym_LT, 827),
     (mozjs_anon_sym_DQUOTE, 407), (mozjs_anon_sym_SQUOTE, 409),
     (mozjs_anon_sym_class, 411), (mozjs_anon_sym_async, 413),
     (mozjs_anon_sym_function, 415), (mozjs_anon_sym_new, 419),
     (mozjs_anon_sym_PLUS, 427), (mozjs_anon_sym_DASH, 427),
     (mozjs_anon_sym_SLASH, 665), (mozjs_anon_sym_BANG, 429),
     (mozjs_anon_sym_TILDE, 429), (mozjs_anon_sym_typeof, 427),
     (mozjs_anon_sym_void, 427), (mozjs_anon_sym_delete, 427),
     (mozjs_anon_sym_PLUS_PLUS, 667), (mozjs_anon_sym_DASH_DASH, 667),
     (mozjs_sym_comment, 5), (mozjs_anon_sym_BQUOTE, 669),
     (mozjs_sym_number, 437), (mozjs_sym_private_property_identifier, 439),
     (mozjs_sym_this, 441), (mozjs_sym_super, 441),
     (mozjs_sym_true, 441), (mozjs_sym_false, 441),
     (mozjs_sym_null, 441), (mozjs_sym_undefined, 443),
     (mozjs_anon_sym_AT, 93), (mozjs_anon_sym_static, 386),
     (mozjs_anon_sym_get, 386), (mozjs_anon_sym_set, 386),
     (mozjs_sym_html_comment, 5)]"

definition mozjs_parse_row_260 :: "(TSSymbol \<times> nat) list" where
  "mozjs_parse_row_260 =
    [(mozjs_sym_import, 1340), (mozjs_sym_parenthesized_expression, 525),
     (mozjs_sym_expression, 653), (mozjs_sym_primary_expression, 584),
     (mozjs_sym_yield_expression, 638), (mozjs_sym_object, 645),
     (mozjs_sym_object_pattern, 1827), (mozjs_sym_array, 645),
     (mozjs_sym_array_pattern, 1827), (mozjs_sym_jsx_element, 638),
     (mozjs_sym_jsx_opening_element, 1152), (mozjs_sym_jsx_self_closing_element, 638),
     (mozjs_sym_class, 645), (mozjs_sym_function_expression, 645),
     (mozjs_sym_generator_function, 645), (mozjs_sym_arrow_function, 645),
     (mozjs_sym_call_expression, 645), (mozjs_sym_new_expression, 587),
     (mozjs_sym_await_expression, 638), (mozjs_sym_member_expression, 525),
     (mozjs_sym_subscript_expression, 525), (mozjs_sym_assignment_expression, 638),
     (mozjs_sym__augmented_assignment_lhs, 1145), (mozjs_sym_augmented_assignment_expression,
       638),
     (mozjs_sym__destructuring_pattern, 1827), (mozjs_sym_ternary_expression, 638),
     (mozjs_sym_binary_expression, 638), (mozjs_sym_unary_expression, 638),
     (mozjs_sym_update_expression, 638), (mozjs_sym_string, 645),
     (mozjs_sym_template_string, 645), (mozjs_sym_regex, 645),
     (mozjs_sym_meta_property, 645), (mozjs_sym_decorator, 1112),
     (mozjs_sym_formal_parameters, 1777), (mozjs_aux_sym_export_statement_repeat1, 1395),
     (mozjs_sym_identifier, 384), (mozjs_anon_sym_export, 386),
     (mozjs_anon_sym_LBRACE, 388), (mozjs_anon_sym_import, 390),
     (mozjs_anon_sym_let, 386), (mozjs_anon_sym_await, 392),
     (mozjs_anon_sym_LPAREN, 657), (mozjs_anon_sym_yield, 397),
     (mozjs_anon_sym_LBRACK, 661), (mozjs_anon_sym_LT, 827),
     (mozjs_anon_sym_DQUOTE, 407), (mozjs_anon_sym_SQUOTE, 409),
     (mozjs_anon_sym_class, 411), (mozjs_anon_sym_async, 413),
     (mozjs_anon_sym_function, 415), (mozjs_anon_sym_new, 419),
     (mozjs_anon_sym_PLUS, 427), (mozjs_anon_sym_DASH, 427),
     (mozjs_anon_sym_SLASH, 665), (mozjs_anon_sym_BANG, 429),
     (mozjs_anon_sym_TILDE, 429), (mozjs_anon_sym_typeof, 427),
     (mozjs_anon_sym_void, 427), (mozjs_anon_sym_delete, 427),
     (mozjs_anon_sym_PLUS_PLUS, 667), (mozjs_anon_sym_DASH_DASH, 667),
     (mozjs_sym_comment, 5), (mozjs_anon_sym_BQUOTE, 669),
     (mozjs_sym_number, 437), (mozjs_sym_private_property_identifier, 439),
     (mozjs_sym_this, 441), (mozjs_sym_super, 441),
     (mozjs_sym_true, 441), (mozjs_sym_false, 441),
     (mozjs_sym_null, 441), (mozjs_sym_undefined, 443),
     (mozjs_anon_sym_AT, 93), (mozjs_anon_sym_static, 386),
     (mozjs_anon_sym_get, 386), (mozjs_anon_sym_set, 386),
     (mozjs_sym_html_comment, 5)]"

definition mozjs_parse_row_261 :: "(TSSymbol \<times> nat) list" where
  "mozjs_parse_row_261 =
    [(mozjs_sym_import, 1340), (mozjs_sym_parenthesized_expression, 525),
     (mozjs_sym_expression, 670), (mozjs_sym_primary_expression, 584),
     (mozjs_sym_yield_expression, 638), (mozjs_sym_object, 645),
     (mozjs_sym_object_pattern, 1827), (mozjs_sym_array, 645),
     (mozjs_sym_array_pattern, 1827), (mozjs_sym_jsx_element, 638),
     (mozjs_sym_jsx_opening_element, 1152), (mozjs_sym_jsx_self_closing_element, 638),
     (mozjs_sym_class, 645), (mozjs_sym_function_expression, 645),
     (mozjs_sym_generator_function, 645), (mozjs_sym_arrow_function, 645),
     (mozjs_sym_call_expression, 645), (mozjs_sym_new_expression, 587),
     (mozjs_sym_await_expression, 638), (mozjs_sym_member_expression, 525),
     (mozjs_sym_subscript_expression, 525), (mozjs_sym_assignment_expression, 638),
     (mozjs_sym__augmented_assignment_lhs, 1145), (mozjs_sym_augmented_assignment_expression,
       638),
     (mozjs_sym__destructuring_pattern, 1827), (mozjs_sym_ternary_expression, 638),
     (mozjs_sym_binary_expression, 638), (mozjs_sym_unary_expression, 638),
     (mozjs_sym_update_expression, 638), (mozjs_sym_string, 645),
     (mozjs_sym_template_string, 645), (mozjs_sym_regex, 645),
     (mozjs_sym_meta_property, 645), (mozjs_sym_decorator, 1112),
     (mozjs_sym_formal_parameters, 1777), (mozjs_aux_sym_export_statement_repeat1, 1395),
     (mozjs_sym_identifier, 384), (mozjs_anon_sym_export, 386),
     (mozjs_anon_sym_LBRACE, 388), (mozjs_anon_sym_import, 390),
     (mozjs_anon_sym_let, 386), (mozjs_anon_sym_await, 392),
     (mozjs_anon_sym_LPAREN, 657), (mozjs_anon_sym_yield, 397),
     (mozjs_anon_sym_LBRACK, 661), (mozjs_anon_sym_LT, 827),
     (mozjs_anon_sym_DQUOTE, 407), (mozjs_anon_sym_SQUOTE, 409),
     (mozjs_anon_sym_class, 411), (mozjs_anon_sym_async, 413),
     (mozjs_anon_sym_function, 415), (mozjs_anon_sym_new, 419),
     (mozjs_anon_sym_PLUS, 427), (mozjs_anon_sym_DASH, 427),
     (mozjs_anon_sym_SLASH, 665), (mozjs_anon_sym_BANG, 429),
     (mozjs_anon_sym_TILDE, 429), (mozjs_anon_sym_typeof, 427),
     (mozjs_anon_sym_void, 427), (mozjs_anon_sym_delete, 427),
     (mozjs_anon_sym_PLUS_PLUS, 667), (mozjs_anon_sym_DASH_DASH, 667),
     (mozjs_sym_comment, 5), (mozjs_anon_sym_BQUOTE, 669),
     (mozjs_sym_number, 437), (mozjs_sym_private_property_identifier, 439),
     (mozjs_sym_this, 441), (mozjs_sym_super, 441),
     (mozjs_sym_true, 441), (mozjs_sym_false, 441),
     (mozjs_sym_null, 441), (mozjs_sym_undefined, 443),
     (mozjs_anon_sym_AT, 93), (mozjs_anon_sym_static, 386),
     (mozjs_anon_sym_get, 386), (mozjs_anon_sym_set, 386),
     (mozjs_sym_html_comment, 5)]"

definition mozjs_parse_row_262 :: "(TSSymbol \<times> nat) list" where
  "mozjs_parse_row_262 =
    [(mozjs_sym_import, 1340), (mozjs_sym_parenthesized_expression, 525),
     (mozjs_sym_expression, 674), (mozjs_sym_primary_expression, 584),
     (mozjs_sym_yield_expression, 638), (mozjs_sym_object, 645),
     (mozjs_sym_object_pattern, 1827), (mozjs_sym_array, 645),
     (mozjs_sym_array_pattern, 1827), (mozjs_sym_jsx_element, 638),
     (mozjs_sym_jsx_opening_element, 1152), (mozjs_sym_jsx_self_closing_element, 638),
     (mozjs_sym_class, 645), (mozjs_sym_function_expression, 645),
     (mozjs_sym_generator_function, 645), (mozjs_sym_arrow_function, 645),
     (mozjs_sym_call_expression, 645), (mozjs_sym_new_expression, 587),
     (mozjs_sym_await_expression, 638), (mozjs_sym_member_expression, 525),
     (mozjs_sym_subscript_expression, 525), (mozjs_sym_assignment_expression, 638),
     (mozjs_sym__augmented_assignment_lhs, 1145), (mozjs_sym_augmented_assignment_expression,
       638),
     (mozjs_sym__destructuring_pattern, 1827), (mozjs_sym_ternary_expression, 638),
     (mozjs_sym_binary_expression, 638), (mozjs_sym_unary_expression, 638),
     (mozjs_sym_update_expression, 638), (mozjs_sym_string, 645),
     (mozjs_sym_template_string, 645), (mozjs_sym_regex, 645),
     (mozjs_sym_meta_property, 645), (mozjs_sym_decorator, 1112),
     (mozjs_sym_formal_parameters, 1777), (mozjs_aux_sym_export_statement_repeat1, 1395),
     (mozjs_sym_identifier, 384), (mozjs_anon_sym_export, 386),
     (mozjs_anon_sym_LBRACE, 388), (mozjs_anon_sym_import, 390),
     (mozjs_anon_sym_let, 386), (mozjs_anon_sym_await, 392),
     (mozjs_anon_sym_LPAREN, 657), (mozjs_anon_sym_yield, 397),
     (mozjs_anon_sym_LBRACK, 661), (mozjs_anon_sym_LT, 827),
     (mozjs_anon_sym_DQUOTE, 407), (mozjs_anon_sym_SQUOTE, 409),
     (mozjs_anon_sym_class, 411), (mozjs_anon_sym_async, 413),
     (mozjs_anon_sym_function, 415), (mozjs_anon_sym_new, 419),
     (mozjs_anon_sym_PLUS, 427), (mozjs_anon_sym_DASH, 427),
     (mozjs_anon_sym_SLASH, 665), (mozjs_anon_sym_BANG, 429),
     (mozjs_anon_sym_TILDE, 429), (mozjs_anon_sym_typeof, 427),
     (mozjs_anon_sym_void, 427), (mozjs_anon_sym_delete, 427),
     (mozjs_anon_sym_PLUS_PLUS, 667), (mozjs_anon_sym_DASH_DASH, 667),
     (mozjs_sym_comment, 5), (mozjs_anon_sym_BQUOTE, 669),
     (mozjs_sym_number, 437), (mozjs_sym_private_property_identifier, 439),
     (mozjs_sym_this, 441), (mozjs_sym_super, 441),
     (mozjs_sym_true, 441), (mozjs_sym_false, 441),
     (mozjs_sym_null, 441), (mozjs_sym_undefined, 443),
     (mozjs_anon_sym_AT, 93), (mozjs_anon_sym_static, 386),
     (mozjs_anon_sym_get, 386), (mozjs_anon_sym_set, 386),
     (mozjs_sym_html_comment, 5)]"

definition mozjs_parse_row_263 :: "(TSSymbol \<times> nat) list" where
  "mozjs_parse_row_263 =
    [(mozjs_sym_import, 1333), (mozjs_sym_parenthesized_expression, 556),
     (mozjs_sym_expression, 796), (mozjs_sym_primary_expression, 693),
     (mozjs_sym_yield_expression, 743), (mozjs_sym_object, 793),
     (mozjs_sym_object_pattern, 1845), (mozjs_sym_array, 793),
     (mozjs_sym_array_pattern, 1845), (mozjs_sym_jsx_element, 743),
     (mozjs_sym_jsx_opening_element, 1158), (mozjs_sym_jsx_self_closing_element, 743),
     (mozjs_sym_class, 793), (mozjs_sym_function_expression, 793),
     (mozjs_sym_generator_function, 793), (mozjs_sym_arrow_function, 793),
     (mozjs_sym_call_expression, 793), (mozjs_sym_new_expression, 692),
     (mozjs_sym_await_expression, 743), (mozjs_sym_member_expression, 556),
     (mozjs_sym_subscript_expression, 556), (mozjs_sym_assignment_expression, 743),
     (mozjs_sym__augmented_assignment_lhs, 1146), (mozjs_sym_augmented_assignment_expression,
       743),
     (mozjs_sym__destructuring_pattern, 1845), (mozjs_sym_ternary_expression, 743),
     (mozjs_sym_binary_expression, 743), (mozjs_sym_unary_expression, 743),
     (mozjs_sym_update_expression, 743), (mozjs_sym_string, 793),
     (mozjs_sym_template_string, 793), (mozjs_sym_regex, 793),
     (mozjs_sym_meta_property, 793), (mozjs_sym_decorator, 1112),
     (mozjs_sym_formal_parameters, 1847), (mozjs_aux_sym_export_statement_repeat1, 1331),
     (mozjs_sym_identifier, 303), (mozjs_anon_sym_export, 305),
     (mozjs_anon_sym_LBRACE, 309), (mozjs_anon_sym_import, 315),
     (mozjs_anon_sym_let, 305), (mozjs_anon_sym_await, 319),
     (mozjs_anon_sym_LPAREN, 37), (mozjs_anon_sym_yield, 57),
     (mozjs_anon_sym_LBRACK, 59), (mozjs_anon_sym_LT, 61),
     (mozjs_anon_sym_DQUOTE, 63), (mozjs_anon_sym_SQUOTE, 65),
     (mozjs_anon_sym_class, 336), (mozjs_anon_sym_async, 338),
     (mozjs_anon_sym_function, 340), (mozjs_anon_sym_new, 73),
     (mozjs_anon_sym_PLUS, 75), (mozjs_anon_sym_DASH, 75),
     (mozjs_anon_sym_SLASH, 77), (mozjs_anon_sym_BANG, 79),
     (mozjs_anon_sym_TILDE, 79), (mozjs_anon_sym_typeof, 75),
     (mozjs_anon_sym_void, 75), (mozjs_anon_sym_delete, 75),
     (mozjs_anon_sym_PLUS_PLUS, 81), (mozjs_anon_sym_DASH_DASH, 81),
     (mozjs_sym_comment, 5), (mozjs_anon_sym_BQUOTE, 83),
     (mozjs_sym_number, 85), (mozjs_sym_private_property_identifier, 358),
     (mozjs_sym_this, 89), (mozjs_sym_super, 89),
     (mozjs_sym_true, 89), (mozjs_sym_false, 89),
     (mozjs_sym_null, 89), (mozjs_sym_undefined, 91),
     (mozjs_anon_sym_AT, 93), (mozjs_anon_sym_static, 305),
     (mozjs_anon_sym_get, 305), (mozjs_anon_sym_set, 305),
     (mozjs_sym_html_comment, 5)]"

definition mozjs_parse_row_264 :: "(TSSymbol \<times> nat) list" where
  "mozjs_parse_row_264 =
    [(mozjs_sym_import, 1340), (mozjs_sym_parenthesized_expression, 525),
     (mozjs_sym_expression, 820), (mozjs_sym_primary_expression, 584),
     (mozjs_sym_yield_expression, 638), (mozjs_sym_object, 645),
     (mozjs_sym_object_pattern, 1401), (mozjs_sym_array, 645),
     (mozjs_sym_array_pattern, 1401), (mozjs_sym_jsx_element, 638),
     (mozjs_sym_jsx_opening_element, 1152), (mozjs_sym_jsx_self_closing_element, 638),
     (mozjs_sym_class, 645), (mozjs_sym_function_expression, 645),
     (mozjs_sym_generator_function, 645), (mozjs_sym_arrow_function, 645),
     (mozjs_sym_call_expression, 645), (mozjs_sym_new_expression, 587),
     (mozjs_sym_await_expression, 638), (mozjs_sym_member_expression, 563),
     (mozjs_sym_subscript_expression, 563), (mozjs_sym_assignment_expression, 638),
     (mozjs_sym__augmented_assignment_lhs, 1145), (mozjs_sym_augmented_assignment_expression,
       638),
     (mozjs_sym__destructuring_pattern, 1401), (mozjs_sym_ternary_expression, 638),
     (mozjs_sym_binary_expression, 638), (mozjs_sym_unary_expression, 638),
     (mozjs_sym_update_expression, 638), (mozjs_sym_string, 645),
     (mozjs_sym_template_string, 645), (mozjs_sym_regex, 645),
     (mozjs_sym_meta_property, 645), (mozjs_sym_decorator, 1112),
     (mozjs_sym_formal_parameters, 1777), (mozjs_aux_sym_export_statement_repeat1, 1395),
     (mozjs_sym_identifier, 1060), (mozjs_anon_sym_export, 1062),
     (mozjs_anon_sym_LBRACE, 465), (mozjs_anon_sym_import, 390),
     (mozjs_anon_sym_let, 1062), (mozjs_anon_sym_await, 1064),
     (mozjs_anon_sym_LPAREN, 657), (mozjs_anon_sym_yield, 397),
     (mozjs_anon_sym_LBRACK, 683), (mozjs_anon_sym_LT, 827),
     (mozjs_anon_sym_DQUOTE, 407), (mozjs_anon_sym_SQUOTE, 409),
     (mozjs_anon_sym_class, 411), (mozjs_anon_sym_async, 1066),
     (mozjs_anon_sym_function, 415), (mozjs_anon_sym_new, 419),
     (mozjs_anon_sym_PLUS, 427), (mozjs_anon_sym_DASH, 427),
     (mozjs_anon_sym_SLASH, 665), (mozjs_anon_sym_BANG, 429),
     (mozjs_anon_sym_TILDE, 429), (mozjs_anon_sym_typeof, 427),
     (mozjs_anon_sym_void, 427), (mozjs_anon_sym_delete, 427),
     (mozjs_anon_sym_PLUS_PLUS, 667), (mozjs_anon_sym_DASH_DASH, 667),
     (mozjs_sym_comment, 5), (mozjs_anon_sym_BQUOTE, 669),
     (mozjs_sym_number, 437), (mozjs_sym_private_property_identifier, 439),
     (mozjs_sym_this, 441), (mozjs_sym_super, 441),
     (mozjs_sym_true, 441), (mozjs_sym_false, 441),
     (mozjs_sym_null, 441), (mozjs_sym_undefined, 1068),
     (mozjs_anon_sym_AT, 93), (mozjs_anon_sym_static, 1062),
     (mozjs_anon_sym_get, 1062), (mozjs_anon_sym_set, 1062),
     (mozjs_sym_html_comment, 5)]"

definition mozjs_parse_row_265 :: "(TSSymbol \<times> nat) list" where
  "mozjs_parse_row_265 =
    [(mozjs_sym_import, 1340), (mozjs_sym_parenthesized_expression, 579),
     (mozjs_sym_expression, 975), (mozjs_sym_primary_expression, 584),
     (mozjs_sym_yield_expression, 638), (mozjs_sym_object, 645),
     (mozjs_sym_object_pattern, 1866), (mozjs_sym_array, 645),
     (mozjs_sym_array_pattern, 1866), (mozjs_sym_jsx_element, 638),
     (mozjs_sym_jsx_opening_element, 1152), (mozjs_sym_jsx_self_closing_element, 638),
     (mozjs_sym_class, 645), (mozjs_sym_function_expression, 645),
     (mozjs_sym_generator_function, 645), (mozjs_sym_arrow_function, 645),
     (mozjs_sym_call_expression, 645), (mozjs_sym_new_expression, 587),
     (mozjs_sym_await_expression, 638), (mozjs_sym_member_expression, 579),
     (mozjs_sym_subscript_expression, 579), (mozjs_sym_assignment_expression, 638),
     (mozjs_sym__augmented_assignment_lhs, 1148), (mozjs_sym_augmented_assignment_expression,
       638),
     (mozjs_sym__destructuring_pattern, 1866), (mozjs_sym_ternary_expression, 638),
     (mozjs_sym_binary_expression, 638), (mozjs_sym_unary_expression, 638),
     (mozjs_sym_update_expression, 638), (mozjs_sym_string, 645),
     (mozjs_sym_template_string, 645), (mozjs_sym_regex, 645),
     (mozjs_sym_meta_property, 645), (mozjs_sym_decorator, 1112),
     (mozjs_sym_formal_parameters, 1788), (mozjs_aux_sym_export_statement_repeat1, 1395),
     (mozjs_sym_identifier, 587), (mozjs_anon_sym_export, 589),
     (mozjs_anon_sym_LBRACE, 465), (mozjs_anon_sym_import, 390),
     (mozjs_anon_sym_let, 589), (mozjs_anon_sym_await, 591),
     (mozjs_anon_sym_LPAREN, 657), (mozjs_anon_sym_yield, 593),
     (mozjs_anon_sym_LBRACK, 683), (mozjs_anon_sym_LT, 827),
     (mozjs_anon_sym_DQUOTE, 407), (mozjs_anon_sym_SQUOTE, 409),
     (mozjs_anon_sym_class, 411), (mozjs_anon_sym_async, 597),
     (mozjs_anon_sym_function, 415), (mozjs_anon_sym_new, 601),
     (mozjs_anon_sym_PLUS, 609), (mozjs_anon_sym_DASH, 609),
     (mozjs_anon_sym_SLASH, 685), (mozjs_anon_sym_BANG, 611),
     (mozjs_anon_sym_TILDE, 611), (mozjs_anon_sym_typeof, 609),
     (mozjs_anon_sym_void, 609), (mozjs_anon_sym_delete, 609),
     (mozjs_anon_sym_PLUS_PLUS, 687), (mozjs_anon_sym_DASH_DASH, 687),
     (mozjs_sym_comment, 5), (mozjs_anon_sym_BQUOTE, 669),
     (mozjs_sym_number, 437), (mozjs_sym_private_property_identifier, 616),
     (mozjs_sym_this, 441), (mozjs_sym_super, 441),
     (mozjs_sym_true, 441), (mozjs_sym_false, 441),
     (mozjs_sym_null, 441), (mozjs_sym_undefined, 618),
     (mozjs_anon_sym_AT, 93), (mozjs_anon_sym_static, 589),
     (mozjs_anon_sym_get, 589), (mozjs_anon_sym_set, 589),
     (mozjs_sym_html_comment, 5)]"

definition mozjs_parse_row_266 :: "(TSSymbol \<times> nat) list" where
  "mozjs_parse_row_266 =
    [(mozjs_sym_import, 1340), (mozjs_sym_parenthesized_expression, 525),
     (mozjs_sym_expression, 683), (mozjs_sym_primary_expression, 584),
     (mozjs_sym_yield_expression, 638), (mozjs_sym_object, 645),
     (mozjs_sym_object_pattern, 1827), (mozjs_sym_array, 645),
     (mozjs_sym_array_pattern, 1827), (mozjs_sym_jsx_element, 638),
     (mozjs_sym_jsx_opening_element, 1152), (mozjs_sym_jsx_self_closing_element, 638),
     (mozjs_sym_class, 645), (mozjs_sym_function_expression, 645),
     (mozjs_sym_generator_function, 645), (mozjs_sym_arrow_function, 645),
     (mozjs_sym_call_expression, 645), (mozjs_sym_new_expression, 587),
     (mozjs_sym_await_expression, 638), (mozjs_sym_member_expression, 525),
     (mozjs_sym_subscript_expression, 525), (mozjs_sym_assignment_expression, 638),
     (mozjs_sym__augmented_assignment_lhs, 1145), (mozjs_sym_augmented_assignment_expression,
       638),
     (mozjs_sym__destructuring_pattern, 1827), (mozjs_sym_ternary_expression, 638),
     (mozjs_sym_binary_expression, 638), (mozjs_sym_unary_expression, 638),
     (mozjs_sym_update_expression, 638), (mozjs_sym_string, 645),
     (mozjs_sym_template_string, 645), (mozjs_sym_regex, 645),
     (mozjs_sym_meta_property, 645), (mozjs_sym_decorator, 1112),
     (mozjs_sym_formal_parameters, 1777), (mozjs_aux_sym_export_statement_repeat1, 1395),
     (mozjs_sym_identifier, 384), (mozjs_anon_sym_export, 386),
     (mozjs_anon_sym_LBRACE, 388), (mozjs_anon_sym_import, 390),
     (mozjs_anon_sym_let, 386), (mozjs_anon_sym_await, 392),
     (mozjs_anon_sym_LPAREN, 657), (mozjs_anon_sym_yield, 397),
     (mozjs_anon_sym_LBRACK, 661), (mozjs_anon_sym_LT, 827),
     (mozjs_anon_sym_DQUOTE, 407), (mozjs_anon_sym_SQUOTE, 409),
     (mozjs_anon_sym_class, 411), (mozjs_anon_sym_async, 413),
     (mozjs_anon_sym_function, 415), (mozjs_anon_sym_new, 419),
     (mozjs_anon_sym_PLUS, 427), (mozjs_anon_sym_DASH, 427),
     (mozjs_anon_sym_SLASH, 665), (mozjs_anon_sym_BANG, 429),
     (mozjs_anon_sym_TILDE, 429), (mozjs_anon_sym_typeof, 427),
     (mozjs_anon_sym_void, 427), (mozjs_anon_sym_delete, 427),
     (mozjs_anon_sym_PLUS_PLUS, 667), (mozjs_anon_sym_DASH_DASH, 667),
     (mozjs_sym_comment, 5), (mozjs_anon_sym_BQUOTE, 669),
     (mozjs_sym_number, 437), (mozjs_sym_private_property_identifier, 439),
     (mozjs_sym_this, 441), (mozjs_sym_super, 441),
     (mozjs_sym_true, 441), (mozjs_sym_false, 441),
     (mozjs_sym_null, 441), (mozjs_sym_undefined, 443),
     (mozjs_anon_sym_AT, 93), (mozjs_anon_sym_static, 386),
     (mozjs_anon_sym_get, 386), (mozjs_anon_sym_set, 386),
     (mozjs_sym_html_comment, 5)]"

definition mozjs_parse_row_267 :: "(TSSymbol \<times> nat) list" where
  "mozjs_parse_row_267 =
    [(mozjs_sym_import, 1333), (mozjs_sym_parenthesized_expression, 556),
     (mozjs_sym_expression, 830), (mozjs_sym_primary_expression, 693),
     (mozjs_sym_yield_expression, 743), (mozjs_sym_object, 793),
     (mozjs_sym_object_pattern, 1845), (mozjs_sym_array, 793),
     (mozjs_sym_array_pattern, 1845), (mozjs_sym_jsx_element, 743),
     (mozjs_sym_jsx_opening_element, 1158), (mozjs_sym_jsx_self_closing_element, 743),
     (mozjs_sym_class, 793), (mozjs_sym_function_expression, 793),
     (mozjs_sym_generator_function, 793), (mozjs_sym_arrow_function, 793),
     (mozjs_sym_call_expression, 793), (mozjs_sym_new_expression, 692),
     (mozjs_sym_await_expression, 743), (mozjs_sym_member_expression, 556),
     (mozjs_sym_subscript_expression, 556), (mozjs_sym_assignment_expression, 743),
     (mozjs_sym__augmented_assignment_lhs, 1146), (mozjs_sym_augmented_assignment_expression,
       743),
     (mozjs_sym__destructuring_pattern, 1845), (mozjs_sym_ternary_expression, 743),
     (mozjs_sym_binary_expression, 743), (mozjs_sym_unary_expression, 743),
     (mozjs_sym_update_expression, 743), (mozjs_sym_string, 793),
     (mozjs_sym_template_string, 793), (mozjs_sym_regex, 793),
     (mozjs_sym_meta_property, 793), (mozjs_sym_decorator, 1112),
     (mozjs_sym_formal_parameters, 1847), (mozjs_aux_sym_export_statement_repeat1, 1331),
     (mozjs_sym_identifier, 303), (mozjs_anon_sym_export, 305),
     (mozjs_anon_sym_LBRACE, 309), (mozjs_anon_sym_import, 315),
     (mozjs_anon_sym_let, 305), (mozjs_anon_sym_await, 319),
     (mozjs_anon_sym_LPAREN, 37), (mozjs_anon_sym_yield, 57),
     (mozjs_anon_sym_LBRACK, 59), (mozjs_anon_sym_LT, 61),
     (mozjs_anon_sym_DQUOTE, 63), (mozjs_anon_sym_SQUOTE, 65),
     (mozjs_anon_sym_class, 336), (mozjs_anon_sym_async, 338),
     (mozjs_anon_sym_function, 340), (mozjs_anon_sym_new, 73),
     (mozjs_anon_sym_PLUS, 75), (mozjs_anon_sym_DASH, 75),
     (mozjs_anon_sym_SLASH, 77), (mozjs_anon_sym_BANG, 79),
     (mozjs_anon_sym_TILDE, 79), (mozjs_anon_sym_typeof, 75),
     (mozjs_anon_sym_void, 75), (mozjs_anon_sym_delete, 75),
     (mozjs_anon_sym_PLUS_PLUS, 81), (mozjs_anon_sym_DASH_DASH, 81),
     (mozjs_sym_comment, 5), (mozjs_anon_sym_BQUOTE, 83),
     (mozjs_sym_number, 85), (mozjs_sym_private_property_identifier, 358),
     (mozjs_sym_this, 89), (mozjs_sym_super, 89),
     (mozjs_sym_true, 89), (mozjs_sym_false, 89),
     (mozjs_sym_null, 89), (mozjs_sym_undefined, 91),
     (mozjs_anon_sym_AT, 93), (mozjs_anon_sym_static, 305),
     (mozjs_anon_sym_get, 305), (mozjs_anon_sym_set, 305),
     (mozjs_sym_html_comment, 5)]"

definition mozjs_parse_row_268 :: "(TSSymbol \<times> nat) list" where
  "mozjs_parse_row_268 =
    [(mozjs_sym_import, 1340), (mozjs_sym_parenthesized_expression, 525),
     (mozjs_sym_expression, 981), (mozjs_sym_primary_expression, 584),
     (mozjs_sym_yield_expression, 638), (mozjs_sym_object, 645),
     (mozjs_sym_object_pattern, 1827), (mozjs_sym_array, 645),
     (mozjs_sym_array_pattern, 1827), (mozjs_sym_jsx_element, 638),
     (mozjs_sym_jsx_opening_element, 1152), (mozjs_sym_jsx_self_closing_element, 638),
     (mozjs_sym_class, 645), (mozjs_sym_function_expression, 645),
     (mozjs_sym_generator_function, 645), (mozjs_sym_arrow_function, 645),
     (mozjs_sym_call_expression, 645), (mozjs_sym_new_expression, 587),
     (mozjs_sym_await_expression, 638), (mozjs_sym_member_expression, 525),
     (mozjs_sym_subscript_expression, 525), (mozjs_sym_assignment_expression, 638),
     (mozjs_sym__augmented_assignment_lhs, 1145), (mozjs_sym_augmented_assignment_expression,
       638),
     (mozjs_sym__destructuring_pattern, 1827), (mozjs_sym_ternary_expression, 638),
     (mozjs_sym_binary_expression, 638), (mozjs_sym_unary_expression, 638),
     (mozjs_sym_update_expression, 638), (mozjs_sym_string, 645),
     (mozjs_sym_template_string, 645), (mozjs_sym_regex, 645),
     (mozjs_sym_meta_property, 645), (mozjs_sym_decorator, 1112),
     (mozjs_sym_formal_parameters, 1777), (mozjs_aux_sym_export_statement_repeat1, 1395),
     (mozjs_sym_identifier, 384), (mozjs_anon_sym_export, 386),
     (mozjs_anon_sym_LBRACE, 388), (mozjs_anon_sym_import, 390),
     (mozjs_anon_sym_let, 386), (mozjs_anon_sym_await, 392),
     (mozjs_anon_sym_LPAREN, 657), (mozjs_anon_sym_yield, 397),
     (mozjs_anon_sym_LBRACK, 661), (mozjs_anon_sym_LT, 827),
     (mozjs_anon_sym_DQUOTE, 407), (mozjs_anon_sym_SQUOTE, 409),
     (mozjs_anon_sym_class, 411), (mozjs_anon_sym_async, 413),
     (mozjs_anon_sym_function, 415), (mozjs_anon_sym_new, 419),
     (mozjs_anon_sym_PLUS, 427), (mozjs_anon_sym_DASH, 427),
     (mozjs_anon_sym_SLASH, 665), (mozjs_anon_sym_BANG, 429),
     (mozjs_anon_sym_TILDE, 429), (mozjs_anon_sym_typeof, 427),
     (mozjs_anon_sym_void, 427), (mozjs_anon_sym_delete, 427),
     (mozjs_anon_sym_PLUS_PLUS, 667), (mozjs_anon_sym_DASH_DASH, 667),
     (mozjs_sym_comment, 5), (mozjs_anon_sym_BQUOTE, 669),
     (mozjs_sym_number, 437), (mozjs_sym_private_property_identifier, 439),
     (mozjs_sym_this, 441), (mozjs_sym_super, 441),
     (mozjs_sym_true, 441), (mozjs_sym_false, 441),
     (mozjs_sym_null, 441), (mozjs_sym_undefined, 443),
     (mozjs_anon_sym_AT, 93), (mozjs_anon_sym_static, 386),
     (mozjs_anon_sym_get, 386), (mozjs_anon_sym_set, 386),
     (mozjs_sym_html_comment, 5)]"

definition mozjs_parse_row_269 :: "(TSSymbol \<times> nat) list" where
  "mozjs_parse_row_269 =
    [(mozjs_sym_import, 1333), (mozjs_sym_parenthesized_expression, 556),
     (mozjs_sym_expression, 822), (mozjs_sym_primary_expression, 693),
     (mozjs_sym_yield_expression, 743), (mozjs_sym_object, 793),
     (mozjs_sym_object_pattern, 1845), (mozjs_sym_array, 793),
     (mozjs_sym_array_pattern, 1845), (mozjs_sym_jsx_element, 743),
     (mozjs_sym_jsx_opening_element, 1158), (mozjs_sym_jsx_self_closing_element, 743),
     (mozjs_sym_class, 793), (mozjs_sym_function_expression, 793),
     (mozjs_sym_generator_function, 793), (mozjs_sym_arrow_function, 793),
     (mozjs_sym_call_expression, 793), (mozjs_sym_new_expression, 692),
     (mozjs_sym_await_expression, 743), (mozjs_sym_member_expression, 556),
     (mozjs_sym_subscript_expression, 556), (mozjs_sym_assignment_expression, 743),
     (mozjs_sym__augmented_assignment_lhs, 1146), (mozjs_sym_augmented_assignment_expression,
       743),
     (mozjs_sym__destructuring_pattern, 1845), (mozjs_sym_ternary_expression, 743),
     (mozjs_sym_binary_expression, 743), (mozjs_sym_unary_expression, 743),
     (mozjs_sym_update_expression, 743), (mozjs_sym_string, 793),
     (mozjs_sym_template_string, 793), (mozjs_sym_regex, 793),
     (mozjs_sym_meta_property, 793), (mozjs_sym_decorator, 1112),
     (mozjs_sym_formal_parameters, 1847), (mozjs_aux_sym_export_statement_repeat1, 1331),
     (mozjs_sym_identifier, 303), (mozjs_anon_sym_export, 305),
     (mozjs_anon_sym_LBRACE, 309), (mozjs_anon_sym_import, 315),
     (mozjs_anon_sym_let, 305), (mozjs_anon_sym_await, 319),
     (mozjs_anon_sym_LPAREN, 37), (mozjs_anon_sym_yield, 57),
     (mozjs_anon_sym_LBRACK, 59), (mozjs_anon_sym_LT, 61),
     (mozjs_anon_sym_DQUOTE, 63), (mozjs_anon_sym_SQUOTE, 65),
     (mozjs_anon_sym_class, 336), (mozjs_anon_sym_async, 338),
     (mozjs_anon_sym_function, 340), (mozjs_anon_sym_new, 73),
     (mozjs_anon_sym_PLUS, 75), (mozjs_anon_sym_DASH, 75),
     (mozjs_anon_sym_SLASH, 77), (mozjs_anon_sym_BANG, 79),
     (mozjs_anon_sym_TILDE, 79), (mozjs_anon_sym_typeof, 75),
     (mozjs_anon_sym_void, 75), (mozjs_anon_sym_delete, 75),
     (mozjs_anon_sym_PLUS_PLUS, 81), (mozjs_anon_sym_DASH_DASH, 81),
     (mozjs_sym_comment, 5), (mozjs_anon_sym_BQUOTE, 83),
     (mozjs_sym_number, 85), (mozjs_sym_private_property_identifier, 358),
     (mozjs_sym_this, 89), (mozjs_sym_super, 89),
     (mozjs_sym_true, 89), (mozjs_sym_false, 89),
     (mozjs_sym_null, 89), (mozjs_sym_undefined, 91),
     (mozjs_anon_sym_AT, 93), (mozjs_anon_sym_static, 305),
     (mozjs_anon_sym_get, 305), (mozjs_anon_sym_set, 305),
     (mozjs_sym_html_comment, 5)]"

definition mozjs_parse_row_270 :: "(TSSymbol \<times> nat) list" where
  "mozjs_parse_row_270 =
    [(mozjs_sym_import, 1333), (mozjs_sym_parenthesized_expression, 556),
     (mozjs_sym_expression, 821), (mozjs_sym_primary_expression, 693),
     (mozjs_sym_yield_expression, 743), (mozjs_sym_object, 793),
     (mozjs_sym_object_pattern, 1845), (mozjs_sym_array, 793),
     (mozjs_sym_array_pattern, 1845), (mozjs_sym_jsx_element, 743),
     (mozjs_sym_jsx_opening_element, 1158), (mozjs_sym_jsx_self_closing_element, 743),
     (mozjs_sym_class, 793), (mozjs_sym_function_expression, 793),
     (mozjs_sym_generator_function, 793), (mozjs_sym_arrow_function, 793),
     (mozjs_sym_call_expression, 793), (mozjs_sym_new_expression, 692),
     (mozjs_sym_await_expression, 743), (mozjs_sym_member_expression, 556),
     (mozjs_sym_subscript_expression, 556), (mozjs_sym_assignment_expression, 743),
     (mozjs_sym__augmented_assignment_lhs, 1146), (mozjs_sym_augmented_assignment_expression,
       743),
     (mozjs_sym__destructuring_pattern, 1845), (mozjs_sym_ternary_expression, 743),
     (mozjs_sym_binary_expression, 743), (mozjs_sym_unary_expression, 743),
     (mozjs_sym_update_expression, 743), (mozjs_sym_string, 793),
     (mozjs_sym_template_string, 793), (mozjs_sym_regex, 793),
     (mozjs_sym_meta_property, 793), (mozjs_sym_decorator, 1112),
     (mozjs_sym_formal_parameters, 1847), (mozjs_aux_sym_export_statement_repeat1, 1331),
     (mozjs_sym_identifier, 303), (mozjs_anon_sym_export, 305),
     (mozjs_anon_sym_LBRACE, 309), (mozjs_anon_sym_import, 315),
     (mozjs_anon_sym_let, 305), (mozjs_anon_sym_await, 319),
     (mozjs_anon_sym_LPAREN, 37), (mozjs_anon_sym_yield, 57),
     (mozjs_anon_sym_LBRACK, 59), (mozjs_anon_sym_LT, 61),
     (mozjs_anon_sym_DQUOTE, 63), (mozjs_anon_sym_SQUOTE, 65),
     (mozjs_anon_sym_class, 336), (mozjs_anon_sym_async, 338),
     (mozjs_anon_sym_function, 340), (mozjs_anon_sym_new, 73),
     (mozjs_anon_sym_PLUS, 75), (mozjs_anon_sym_DASH, 75),
     (mozjs_anon_sym_SLASH, 77), (mozjs_anon_sym_BANG, 79),
     (mozjs_anon_sym_TILDE, 79), (mozjs_anon_sym_typeof, 75),
     (mozjs_anon_sym_void, 75), (mozjs_anon_sym_delete, 75),
     (mozjs_anon_sym_PLUS_PLUS, 81), (mozjs_anon_sym_DASH_DASH, 81),
     (mozjs_sym_comment, 5), (mozjs_anon_sym_BQUOTE, 83),
     (mozjs_sym_number, 85), (mozjs_sym_private_property_identifier, 358),
     (mozjs_sym_this, 89), (mozjs_sym_super, 89),
     (mozjs_sym_true, 89), (mozjs_sym_false, 89),
     (mozjs_sym_null, 89), (mozjs_sym_undefined, 91),
     (mozjs_anon_sym_AT, 93), (mozjs_anon_sym_static, 305),
     (mozjs_anon_sym_get, 305), (mozjs_anon_sym_set, 305),
     (mozjs_sym_html_comment, 5)]"

definition mozjs_parse_row_271 :: "(TSSymbol \<times> nat) list" where
  "mozjs_parse_row_271 =
    [(mozjs_sym_import, 1333), (mozjs_sym_parenthesized_expression, 559),
     (mozjs_sym_expression, 826), (mozjs_sym_primary_expression, 693),
     (mozjs_sym_yield_expression, 743), (mozjs_sym_object, 793),
     (mozjs_sym_object_pattern, 1811), (mozjs_sym_array, 793),
     (mozjs_sym_array_pattern, 1811), (mozjs_sym_jsx_element, 743),
     (mozjs_sym_jsx_opening_element, 1158), (mozjs_sym_jsx_self_closing_element, 743),
     (mozjs_sym_class, 793), (mozjs_sym_function_expression, 793),
     (mozjs_sym_generator_function, 793), (mozjs_sym_arrow_function, 793),
     (mozjs_sym_call_expression, 793), (mozjs_sym_new_expression, 692),
     (mozjs_sym_await_expression, 743), (mozjs_sym_member_expression, 559),
     (mozjs_sym_subscript_expression, 559), (mozjs_sym_assignment_expression, 743),
     (mozjs_sym__augmented_assignment_lhs, 1143), (mozjs_sym_augmented_assignment_expression,
       743),
     (mozjs_sym__destructuring_pattern, 1811), (mozjs_sym_ternary_expression, 743),
     (mozjs_sym_binary_expression, 743), (mozjs_sym_unary_expression, 743),
     (mozjs_sym_update_expression, 743), (mozjs_sym_string, 793),
     (mozjs_sym_template_string, 793), (mozjs_sym_regex, 793),
     (mozjs_sym_meta_property, 793), (mozjs_sym_decorator, 1112),
     (mozjs_sym_formal_parameters, 1812), (mozjs_aux_sym_export_statement_repeat1, 1331),
     (mozjs_sym_identifier, 551), (mozjs_anon_sym_export, 553),
     (mozjs_anon_sym_LBRACE, 309), (mozjs_anon_sym_import, 315),
     (mozjs_anon_sym_let, 553), (mozjs_anon_sym_await, 555),
     (mozjs_anon_sym_LPAREN, 37), (mozjs_anon_sym_yield, 557),
     (mozjs_anon_sym_LBRACK, 59), (mozjs_anon_sym_LT, 61),
     (mozjs_anon_sym_DQUOTE, 63), (mozjs_anon_sym_SQUOTE, 65),
     (mozjs_anon_sym_class, 336), (mozjs_anon_sym_async, 561),
     (mozjs_anon_sym_function, 340), (mozjs_anon_sym_new, 565),
     (mozjs_anon_sym_PLUS, 573), (mozjs_anon_sym_DASH, 573),
     (mozjs_anon_sym_SLASH, 677), (mozjs_anon_sym_BANG, 575),
     (mozjs_anon_sym_TILDE, 575), (mozjs_anon_sym_typeof, 573),
     (mozjs_anon_sym_void, 573), (mozjs_anon_sym_delete, 573),
     (mozjs_anon_sym_PLUS_PLUS, 679), (mozjs_anon_sym_DASH_DASH, 679),
     (mozjs_sym_comment, 5), (mozjs_anon_sym_BQUOTE, 83),
     (mozjs_sym_number, 85), (mozjs_sym_private_property_identifier, 580),
     (mozjs_sym_this, 89), (mozjs_sym_super, 89),
     (mozjs_sym_true, 89), (mozjs_sym_false, 89),
     (mozjs_sym_null, 89), (mozjs_sym_undefined, 582),
     (mozjs_anon_sym_AT, 93), (mozjs_anon_sym_static, 553),
     (mozjs_anon_sym_get, 553), (mozjs_anon_sym_set, 553),
     (mozjs_sym_html_comment, 5)]"

definition mozjs_parse_row_272 :: "(TSSymbol \<times> nat) list" where
  "mozjs_parse_row_272 =
    [(mozjs_sym_import, 1333), (mozjs_sym_parenthesized_expression, 556),
     (mozjs_sym_expression, 856), (mozjs_sym_primary_expression, 693),
     (mozjs_sym_yield_expression, 743), (mozjs_sym_object, 793),
     (mozjs_sym_object_pattern, 1845), (mozjs_sym_array, 793),
     (mozjs_sym_array_pattern, 1845), (mozjs_sym_jsx_element, 743),
     (mozjs_sym_jsx_opening_element, 1158), (mozjs_sym_jsx_self_closing_element, 743),
     (mozjs_sym_class, 793), (mozjs_sym_function_expression, 793),
     (mozjs_sym_generator_function, 793), (mozjs_sym_arrow_function, 793),
     (mozjs_sym_call_expression, 793), (mozjs_sym_new_expression, 692),
     (mozjs_sym_await_expression, 743), (mozjs_sym_member_expression, 556),
     (mozjs_sym_subscript_expression, 556), (mozjs_sym_assignment_expression, 743),
     (mozjs_sym__augmented_assignment_lhs, 1146), (mozjs_sym_augmented_assignment_expression,
       743),
     (mozjs_sym__destructuring_pattern, 1845), (mozjs_sym_ternary_expression, 743),
     (mozjs_sym_binary_expression, 743), (mozjs_sym_unary_expression, 743),
     (mozjs_sym_update_expression, 743), (mozjs_sym_string, 793),
     (mozjs_sym_template_string, 793), (mozjs_sym_regex, 793),
     (mozjs_sym_meta_property, 793), (mozjs_sym_decorator, 1112),
     (mozjs_sym_formal_parameters, 1847), (mozjs_aux_sym_export_statement_repeat1, 1331),
     (mozjs_sym_identifier, 303), (mozjs_anon_sym_export, 305),
     (mozjs_anon_sym_LBRACE, 309), (mozjs_anon_sym_import, 315),
     (mozjs_anon_sym_let, 305), (mozjs_anon_sym_await, 319),
     (mozjs_anon_sym_LPAREN, 37), (mozjs_anon_sym_yield, 57),
     (mozjs_anon_sym_LBRACK, 59), (mozjs_anon_sym_LT, 61),
     (mozjs_anon_sym_DQUOTE, 63), (mozjs_anon_sym_SQUOTE, 65),
     (mozjs_anon_sym_class, 336), (mozjs_anon_sym_async, 338),
     (mozjs_anon_sym_function, 340), (mozjs_anon_sym_new, 73),
     (mozjs_anon_sym_PLUS, 75), (mozjs_anon_sym_DASH, 75),
     (mozjs_anon_sym_SLASH, 77), (mozjs_anon_sym_BANG, 79),
     (mozjs_anon_sym_TILDE, 79), (mozjs_anon_sym_typeof, 75),
     (mozjs_anon_sym_void, 75), (mozjs_anon_sym_delete, 75),
     (mozjs_anon_sym_PLUS_PLUS, 81), (mozjs_anon_sym_DASH_DASH, 81),
     (mozjs_sym_comment, 5), (mozjs_anon_sym_BQUOTE, 83),
     (mozjs_sym_number, 85), (mozjs_sym_private_property_identifier, 358),
     (mozjs_sym_this, 89), (mozjs_sym_super, 89),
     (mozjs_sym_true, 89), (mozjs_sym_false, 89),
     (mozjs_sym_null, 89), (mozjs_sym_undefined, 91),
     (mozjs_anon_sym_AT, 93), (mozjs_anon_sym_static, 305),
     (mozjs_anon_sym_get, 305), (mozjs_anon_sym_set, 305),
     (mozjs_sym_html_comment, 5)]"

definition mozjs_parse_row_273 :: "(TSSymbol \<times> nat) list" where
  "mozjs_parse_row_273 =
    [(mozjs_sym_import, 1340), (mozjs_sym_parenthesized_expression, 578),
     (mozjs_sym_expression, 591), (mozjs_sym_primary_expression, 584),
     (mozjs_sym_yield_expression, 638), (mozjs_sym_object, 645),
     (mozjs_sym_object_pattern, 1808), (mozjs_sym_array, 645),
     (mozjs_sym_array_pattern, 1808), (mozjs_sym_jsx_element, 638),
     (mozjs_sym_jsx_opening_element, 1152), (mozjs_sym_jsx_self_closing_element, 638),
     (mozjs_sym_class, 645), (mozjs_sym_function_expression, 645),
     (mozjs_sym_generator_function, 645), (mozjs_sym_arrow_function, 645),
     (mozjs_sym_call_expression, 645), (mozjs_sym_new_expression, 587),
     (mozjs_sym_await_expression, 638), (mozjs_sym_member_expression, 578),
     (mozjs_sym_subscript_expression, 578), (mozjs_sym_assignment_expression, 638),
     (mozjs_sym__augmented_assignment_lhs, 1147), (mozjs_sym_augmented_assignment_expression,
       638),
     (mozjs_sym__destructuring_pattern, 1808), (mozjs_sym_ternary_expression, 638),
     (mozjs_sym_binary_expression, 638), (mozjs_sym_unary_expression, 638),
     (mozjs_sym_update_expression, 638), (mozjs_sym_string, 645),
     (mozjs_sym_template_string, 645), (mozjs_sym_regex, 645),
     (mozjs_sym_meta_property, 645), (mozjs_sym_decorator, 1112),
     (mozjs_sym_formal_parameters, 1838), (mozjs_aux_sym_export_statement_repeat1, 1395),
     (mozjs_sym_identifier, 620), (mozjs_anon_sym_export, 622),
     (mozjs_anon_sym_LBRACE, 465), (mozjs_anon_sym_import, 390),
     (mozjs_anon_sym_let, 622), (mozjs_anon_sym_await, 627),
     (mozjs_anon_sym_LPAREN, 657), (mozjs_anon_sym_yield, 629),
     (mozjs_anon_sym_LBRACK, 683), (mozjs_anon_sym_LT, 827),
     (mozjs_anon_sym_DQUOTE, 407), (mozjs_anon_sym_SQUOTE, 409),
     (mozjs_anon_sym_class, 411), (mozjs_anon_sym_async, 633),
     (mozjs_anon_sym_function, 415), (mozjs_anon_sym_new, 637),
     (mozjs_anon_sym_PLUS, 642), (mozjs_anon_sym_DASH, 642),
     (mozjs_anon_sym_SLASH, 665), (mozjs_anon_sym_BANG, 644),
     (mozjs_anon_sym_TILDE, 644), (mozjs_anon_sym_typeof, 642),
     (mozjs_anon_sym_void, 642), (mozjs_anon_sym_delete, 642),
     (mozjs_anon_sym_PLUS_PLUS, 695), (mozjs_anon_sym_DASH_DASH, 695),
     (mozjs_sym_comment, 5), (mozjs_anon_sym_BQUOTE, 669),
     (mozjs_sym_number, 437), (mozjs_sym_private_property_identifier, 649),
     (mozjs_sym_this, 441), (mozjs_sym_super, 441),
     (mozjs_sym_true, 441), (mozjs_sym_false, 441),
     (mozjs_sym_null, 441), (mozjs_sym_undefined, 651),
     (mozjs_anon_sym_AT, 93), (mozjs_anon_sym_static, 622),
     (mozjs_anon_sym_get, 622), (mozjs_anon_sym_set, 622),
     (mozjs_sym_html_comment, 5)]"

definition mozjs_parse_row_274 :: "(TSSymbol \<times> nat) list" where
  "mozjs_parse_row_274 =
    [(mozjs_sym_import, 1340), (mozjs_sym_parenthesized_expression, 578),
     (mozjs_sym_expression, 585), (mozjs_sym_primary_expression, 584),
     (mozjs_sym_yield_expression, 638), (mozjs_sym_object, 645),
     (mozjs_sym_object_pattern, 1808), (mozjs_sym_array, 645),
     (mozjs_sym_array_pattern, 1808), (mozjs_sym_jsx_element, 638),
     (mozjs_sym_jsx_opening_element, 1152), (mozjs_sym_jsx_self_closing_element, 638),
     (mozjs_sym_class, 645), (mozjs_sym_function_expression, 645),
     (mozjs_sym_generator_function, 645), (mozjs_sym_arrow_function, 645),
     (mozjs_sym_call_expression, 645), (mozjs_sym_new_expression, 587),
     (mozjs_sym_await_expression, 638), (mozjs_sym_member_expression, 578),
     (mozjs_sym_subscript_expression, 578), (mozjs_sym_assignment_expression, 638),
     (mozjs_sym__augmented_assignment_lhs, 1147), (mozjs_sym_augmented_assignment_expression,
       638),
     (mozjs_sym__destructuring_pattern, 1808), (mozjs_sym_ternary_expression, 638),
     (mozjs_sym_binary_expression, 638), (mozjs_sym_unary_expression, 638),
     (mozjs_sym_update_expression, 638), (mozjs_sym_string, 645),
     (mozjs_sym_template_string, 645), (mozjs_sym_regex, 645),
     (mozjs_sym_meta_property, 645), (mozjs_sym_decorator, 1112),
     (mozjs_sym_formal_parameters, 1838), (mozjs_aux_sym_export_statement_repeat1, 1395),
     (mozjs_sym_identifier, 620), (mozjs_anon_sym_export, 622),
     (mozjs_anon_sym_LBRACE, 465), (mozjs_anon_sym_import, 390),
     (mozjs_anon_sym_let, 622), (mozjs_anon_sym_await, 627),
     (mozjs_anon_sym_LPAREN, 657), (mozjs_anon_sym_yield, 629),
     (mozjs_anon_sym_LBRACK, 683), (mozjs_anon_sym_LT, 827),
     (mozjs_anon_sym_DQUOTE, 407), (mozjs_anon_sym_SQUOTE, 409),
     (mozjs_anon_sym_class, 411), (mozjs_anon_sym_async, 633),
     (mozjs_anon_sym_function, 415), (mozjs_anon_sym_new, 637),
     (mozjs_anon_sym_PLUS, 642), (mozjs_anon_sym_DASH, 642),
     (mozjs_anon_sym_SLASH, 665), (mozjs_anon_sym_BANG, 644),
     (mozjs_anon_sym_TILDE, 644), (mozjs_anon_sym_typeof, 642),
     (mozjs_anon_sym_void, 642), (mozjs_anon_sym_delete, 642),
     (mozjs_anon_sym_PLUS_PLUS, 695), (mozjs_anon_sym_DASH_DASH, 695),
     (mozjs_sym_comment, 5), (mozjs_anon_sym_BQUOTE, 669),
     (mozjs_sym_number, 437), (mozjs_sym_private_property_identifier, 649),
     (mozjs_sym_this, 441), (mozjs_sym_super, 441),
     (mozjs_sym_true, 441), (mozjs_sym_false, 441),
     (mozjs_sym_null, 441), (mozjs_sym_undefined, 651),
     (mozjs_anon_sym_AT, 93), (mozjs_anon_sym_static, 622),
     (mozjs_anon_sym_get, 622), (mozjs_anon_sym_set, 622),
     (mozjs_sym_html_comment, 5)]"

definition mozjs_parse_row_275 :: "(TSSymbol \<times> nat) list" where
  "mozjs_parse_row_275 =
    [(mozjs_sym_import, 1340), (mozjs_sym_parenthesized_expression, 578),
     (mozjs_sym_expression, 911), (mozjs_sym_primary_expression, 584),
     (mozjs_sym_yield_expression, 638), (mozjs_sym_object, 645),
     (mozjs_sym_object_pattern, 1808), (mozjs_sym_array, 645),
     (mozjs_sym_array_pattern, 1808), (mozjs_sym_jsx_element, 638),
     (mozjs_sym_jsx_opening_element, 1152), (mozjs_sym_jsx_self_closing_element, 638),
     (mozjs_sym_class, 645), (mozjs_sym_function_expression, 645),
     (mozjs_sym_generator_function, 645), (mozjs_sym_arrow_function, 645),
     (mozjs_sym_call_expression, 645), (mozjs_sym_new_expression, 587),
     (mozjs_sym_await_expression, 638), (mozjs_sym_member_expression, 578),
     (mozjs_sym_subscript_expression, 578), (mozjs_sym_assignment_expression, 638),
     (mozjs_sym__augmented_assignment_lhs, 1147), (mozjs_sym_augmented_assignment_expression,
       638),
     (mozjs_sym__destructuring_pattern, 1808), (mozjs_sym_ternary_expression, 638),
     (mozjs_sym_binary_expression, 638), (mozjs_sym_unary_expression, 638),
     (mozjs_sym_update_expression, 638), (mozjs_sym_string, 645),
     (mozjs_sym_template_string, 645), (mozjs_sym_regex, 645),
     (mozjs_sym_meta_property, 645), (mozjs_sym_decorator, 1112),
     (mozjs_sym_formal_parameters, 1838), (mozjs_aux_sym_export_statement_repeat1, 1395),
     (mozjs_sym_identifier, 620), (mozjs_anon_sym_export, 622),
     (mozjs_anon_sym_LBRACE, 465), (mozjs_anon_sym_import, 390),
     (mozjs_anon_sym_let, 622), (mozjs_anon_sym_await, 627),
     (mozjs_anon_sym_LPAREN, 657), (mozjs_anon_sym_yield, 629),
     (mozjs_anon_sym_LBRACK, 683), (mozjs_anon_sym_LT, 827),
     (mozjs_anon_sym_DQUOTE, 407), (mozjs_anon_sym_SQUOTE, 409),
     (mozjs_anon_sym_class, 411), (mozjs_anon_sym_async, 633),
     (mozjs_anon_sym_function, 415), (mozjs_anon_sym_new, 637),
     (mozjs_anon_sym_PLUS, 642), (mozjs_anon_sym_DASH, 642),
     (mozjs_anon_sym_SLASH, 665), (mozjs_anon_sym_BANG, 644),
     (mozjs_anon_sym_TILDE, 644), (mozjs_anon_sym_typeof, 642),
     (mozjs_anon_sym_void, 642), (mozjs_anon_sym_delete, 642),
     (mozjs_anon_sym_PLUS_PLUS, 695), (mozjs_anon_sym_DASH_DASH, 695),
     (mozjs_sym_comment, 5), (mozjs_anon_sym_BQUOTE, 669),
     (mozjs_sym_number, 437), (mozjs_sym_private_property_identifier, 649),
     (mozjs_sym_this, 441), (mozjs_sym_super, 441),
     (mozjs_sym_true, 441), (mozjs_sym_false, 441),
     (mozjs_sym_null, 441), (mozjs_sym_undefined, 651),
     (mozjs_anon_sym_AT, 93), (mozjs_anon_sym_static, 622),
     (mozjs_anon_sym_get, 622), (mozjs_anon_sym_set, 622),
     (mozjs_sym_html_comment, 5)]"

definition mozjs_parse_row_276 :: "(TSSymbol \<times> nat) list" where
  "mozjs_parse_row_276 =
    [(mozjs_sym_import, 1340), (mozjs_sym_parenthesized_expression, 578),
     (mozjs_sym_expression, 915), (mozjs_sym_primary_expression, 584),
     (mozjs_sym_yield_expression, 638), (mozjs_sym_object, 645),
     (mozjs_sym_object_pattern, 1808), (mozjs_sym_array, 645),
     (mozjs_sym_array_pattern, 1808), (mozjs_sym_jsx_element, 638),
     (mozjs_sym_jsx_opening_element, 1152), (mozjs_sym_jsx_self_closing_element, 638),
     (mozjs_sym_class, 645), (mozjs_sym_function_expression, 645),
     (mozjs_sym_generator_function, 645), (mozjs_sym_arrow_function, 645),
     (mozjs_sym_call_expression, 645), (mozjs_sym_new_expression, 587),
     (mozjs_sym_await_expression, 638), (mozjs_sym_member_expression, 578),
     (mozjs_sym_subscript_expression, 578), (mozjs_sym_assignment_expression, 638),
     (mozjs_sym__augmented_assignment_lhs, 1147), (mozjs_sym_augmented_assignment_expression,
       638),
     (mozjs_sym__destructuring_pattern, 1808), (mozjs_sym_ternary_expression, 638),
     (mozjs_sym_binary_expression, 638), (mozjs_sym_unary_expression, 638),
     (mozjs_sym_update_expression, 638), (mozjs_sym_string, 645),
     (mozjs_sym_template_string, 645), (mozjs_sym_regex, 645),
     (mozjs_sym_meta_property, 645), (mozjs_sym_decorator, 1112),
     (mozjs_sym_formal_parameters, 1838), (mozjs_aux_sym_export_statement_repeat1, 1395),
     (mozjs_sym_identifier, 620), (mozjs_anon_sym_export, 622),
     (mozjs_anon_sym_LBRACE, 465), (mozjs_anon_sym_import, 390),
     (mozjs_anon_sym_let, 622), (mozjs_anon_sym_await, 627),
     (mozjs_anon_sym_LPAREN, 657), (mozjs_anon_sym_yield, 629),
     (mozjs_anon_sym_LBRACK, 683), (mozjs_anon_sym_LT, 827),
     (mozjs_anon_sym_DQUOTE, 407), (mozjs_anon_sym_SQUOTE, 409),
     (mozjs_anon_sym_class, 411), (mozjs_anon_sym_async, 633),
     (mozjs_anon_sym_function, 415), (mozjs_anon_sym_new, 637),
     (mozjs_anon_sym_PLUS, 642), (mozjs_anon_sym_DASH, 642),
     (mozjs_anon_sym_SLASH, 665), (mozjs_anon_sym_BANG, 644),
     (mozjs_anon_sym_TILDE, 644), (mozjs_anon_sym_typeof, 642),
     (mozjs_anon_sym_void, 642), (mozjs_anon_sym_delete, 642),
     (mozjs_anon_sym_PLUS_PLUS, 695), (mozjs_anon_sym_DASH_DASH, 695),
     (mozjs_sym_comment, 5), (mozjs_anon_sym_BQUOTE, 669),
     (mozjs_sym_number, 437), (mozjs_sym_private_property_identifier, 649),
     (mozjs_sym_this, 441), (mozjs_sym_super, 441),
     (mozjs_sym_true, 441), (mozjs_sym_false, 441),
     (mozjs_sym_null, 441), (mozjs_sym_undefined, 651),
     (mozjs_anon_sym_AT, 93), (mozjs_anon_sym_static, 622),
     (mozjs_anon_sym_get, 622), (mozjs_anon_sym_set, 622),
     (mozjs_sym_html_comment, 5)]"

definition mozjs_parse_row_277 :: "(TSSymbol \<times> nat) list" where
  "mozjs_parse_row_277 =
    [(mozjs_sym_import, 1340), (mozjs_sym_parenthesized_expression, 578),
     (mozjs_sym_expression, 919), (mozjs_sym_primary_expression, 584),
     (mozjs_sym_yield_expression, 638), (mozjs_sym_object, 645),
     (mozjs_sym_object_pattern, 1808), (mozjs_sym_array, 645),
     (mozjs_sym_array_pattern, 1808), (mozjs_sym_jsx_element, 638),
     (mozjs_sym_jsx_opening_element, 1152), (mozjs_sym_jsx_self_closing_element, 638),
     (mozjs_sym_class, 645), (mozjs_sym_function_expression, 645),
     (mozjs_sym_generator_function, 645), (mozjs_sym_arrow_function, 645),
     (mozjs_sym_call_expression, 645), (mozjs_sym_new_expression, 587),
     (mozjs_sym_await_expression, 638), (mozjs_sym_member_expression, 578),
     (mozjs_sym_subscript_expression, 578), (mozjs_sym_assignment_expression, 638),
     (mozjs_sym__augmented_assignment_lhs, 1147), (mozjs_sym_augmented_assignment_expression,
       638),
     (mozjs_sym__destructuring_pattern, 1808), (mozjs_sym_ternary_expression, 638),
     (mozjs_sym_binary_expression, 638), (mozjs_sym_unary_expression, 638),
     (mozjs_sym_update_expression, 638), (mozjs_sym_string, 645),
     (mozjs_sym_template_string, 645), (mozjs_sym_regex, 645),
     (mozjs_sym_meta_property, 645), (mozjs_sym_decorator, 1112),
     (mozjs_sym_formal_parameters, 1838), (mozjs_aux_sym_export_statement_repeat1, 1395),
     (mozjs_sym_identifier, 620), (mozjs_anon_sym_export, 622),
     (mozjs_anon_sym_LBRACE, 465), (mozjs_anon_sym_import, 390),
     (mozjs_anon_sym_let, 622), (mozjs_anon_sym_await, 627),
     (mozjs_anon_sym_LPAREN, 657), (mozjs_anon_sym_yield, 629),
     (mozjs_anon_sym_LBRACK, 683), (mozjs_anon_sym_LT, 827),
     (mozjs_anon_sym_DQUOTE, 407), (mozjs_anon_sym_SQUOTE, 409),
     (mozjs_anon_sym_class, 411), (mozjs_anon_sym_async, 633),
     (mozjs_anon_sym_function, 415), (mozjs_anon_sym_new, 637),
     (mozjs_anon_sym_PLUS, 642), (mozjs_anon_sym_DASH, 642),
     (mozjs_anon_sym_SLASH, 665), (mozjs_anon_sym_BANG, 644),
     (mozjs_anon_sym_TILDE, 644), (mozjs_anon_sym_typeof, 642),
     (mozjs_anon_sym_void, 642), (mozjs_anon_sym_delete, 642),
     (mozjs_anon_sym_PLUS_PLUS, 695), (mozjs_anon_sym_DASH_DASH, 695),
     (mozjs_sym_comment, 5), (mozjs_anon_sym_BQUOTE, 669),
     (mozjs_sym_number, 437), (mozjs_sym_private_property_identifier, 649),
     (mozjs_sym_this, 441), (mozjs_sym_super, 441),
     (mozjs_sym_true, 441), (mozjs_sym_false, 441),
     (mozjs_sym_null, 441), (mozjs_sym_undefined, 651),
     (mozjs_anon_sym_AT, 93), (mozjs_anon_sym_static, 622),
     (mozjs_anon_sym_get, 622), (mozjs_anon_sym_set, 622),
     (mozjs_sym_html_comment, 5)]"

definition mozjs_parse_row_278 :: "(TSSymbol \<times> nat) list" where
  "mozjs_parse_row_278 =
    [(mozjs_sym_import, 1340), (mozjs_sym_parenthesized_expression, 578),
     (mozjs_sym_expression, 941), (mozjs_sym_primary_expression, 584),
     (mozjs_sym_yield_expression, 638), (mozjs_sym_object, 645),
     (mozjs_sym_object_pattern, 1808), (mozjs_sym_array, 645),
     (mozjs_sym_array_pattern, 1808), (mozjs_sym_jsx_element, 638),
     (mozjs_sym_jsx_opening_element, 1152), (mozjs_sym_jsx_self_closing_element, 638),
     (mozjs_sym_class, 645), (mozjs_sym_function_expression, 645),
     (mozjs_sym_generator_function, 645), (mozjs_sym_arrow_function, 645),
     (mozjs_sym_call_expression, 645), (mozjs_sym_new_expression, 587),
     (mozjs_sym_await_expression, 638), (mozjs_sym_member_expression, 578),
     (mozjs_sym_subscript_expression, 578), (mozjs_sym_assignment_expression, 638),
     (mozjs_sym__augmented_assignment_lhs, 1147), (mozjs_sym_augmented_assignment_expression,
       638),
     (mozjs_sym__destructuring_pattern, 1808), (mozjs_sym_ternary_expression, 638),
     (mozjs_sym_binary_expression, 638), (mozjs_sym_unary_expression, 638),
     (mozjs_sym_update_expression, 638), (mozjs_sym_string, 645),
     (mozjs_sym_template_string, 645), (mozjs_sym_regex, 645),
     (mozjs_sym_meta_property, 645), (mozjs_sym_decorator, 1112),
     (mozjs_sym_formal_parameters, 1838), (mozjs_aux_sym_export_statement_repeat1, 1395),
     (mozjs_sym_identifier, 620), (mozjs_anon_sym_export, 622),
     (mozjs_anon_sym_LBRACE, 465), (mozjs_anon_sym_import, 390),
     (mozjs_anon_sym_let, 622), (mozjs_anon_sym_await, 627),
     (mozjs_anon_sym_LPAREN, 657), (mozjs_anon_sym_yield, 629),
     (mozjs_anon_sym_LBRACK, 683), (mozjs_anon_sym_LT, 827),
     (mozjs_anon_sym_DQUOTE, 407), (mozjs_anon_sym_SQUOTE, 409),
     (mozjs_anon_sym_class, 411), (mozjs_anon_sym_async, 633),
     (mozjs_anon_sym_function, 415), (mozjs_anon_sym_new, 637),
     (mozjs_anon_sym_PLUS, 642), (mozjs_anon_sym_DASH, 642),
     (mozjs_anon_sym_SLASH, 665), (mozjs_anon_sym_BANG, 644),
     (mozjs_anon_sym_TILDE, 644), (mozjs_anon_sym_typeof, 642),
     (mozjs_anon_sym_void, 642), (mozjs_anon_sym_delete, 642),
     (mozjs_anon_sym_PLUS_PLUS, 695), (mozjs_anon_sym_DASH_DASH, 695),
     (mozjs_sym_comment, 5), (mozjs_anon_sym_BQUOTE, 669),
     (mozjs_sym_number, 437), (mozjs_sym_private_property_identifier, 649),
     (mozjs_sym_this, 441), (mozjs_sym_super, 441),
     (mozjs_sym_true, 441), (mozjs_sym_false, 441),
     (mozjs_sym_null, 441), (mozjs_sym_undefined, 651),
     (mozjs_anon_sym_AT, 93), (mozjs_anon_sym_static, 622),
     (mozjs_anon_sym_get, 622), (mozjs_anon_sym_set, 622),
     (mozjs_sym_html_comment, 5)]"

definition mozjs_parse_row_279 :: "(TSSymbol \<times> nat) list" where
  "mozjs_parse_row_279 =
    [(mozjs_sym_import, 1340), (mozjs_sym_parenthesized_expression, 578),
     (mozjs_sym_expression, 962), (mozjs_sym_primary_expression, 584),
     (mozjs_sym_yield_expression, 638), (mozjs_sym_object, 645),
     (mozjs_sym_object_pattern, 1808), (mozjs_sym_array, 645),
     (mozjs_sym_array_pattern, 1808), (mozjs_sym_jsx_element, 638),
     (mozjs_sym_jsx_opening_element, 1152), (mozjs_sym_jsx_self_closing_element, 638),
     (mozjs_sym_class, 645), (mozjs_sym_function_expression, 645),
     (mozjs_sym_generator_function, 645), (mozjs_sym_arrow_function, 645),
     (mozjs_sym_call_expression, 645), (mozjs_sym_new_expression, 587),
     (mozjs_sym_await_expression, 638), (mozjs_sym_member_expression, 578),
     (mozjs_sym_subscript_expression, 578), (mozjs_sym_assignment_expression, 638),
     (mozjs_sym__augmented_assignment_lhs, 1147), (mozjs_sym_augmented_assignment_expression,
       638),
     (mozjs_sym__destructuring_pattern, 1808), (mozjs_sym_ternary_expression, 638),
     (mozjs_sym_binary_expression, 638), (mozjs_sym_unary_expression, 638),
     (mozjs_sym_update_expression, 638), (mozjs_sym_string, 645),
     (mozjs_sym_template_string, 645), (mozjs_sym_regex, 645),
     (mozjs_sym_meta_property, 645), (mozjs_sym_decorator, 1112),
     (mozjs_sym_formal_parameters, 1838), (mozjs_aux_sym_export_statement_repeat1, 1395),
     (mozjs_sym_identifier, 620), (mozjs_anon_sym_export, 622),
     (mozjs_anon_sym_LBRACE, 465), (mozjs_anon_sym_import, 390),
     (mozjs_anon_sym_let, 622), (mozjs_anon_sym_await, 627),
     (mozjs_anon_sym_LPAREN, 657), (mozjs_anon_sym_yield, 629),
     (mozjs_anon_sym_LBRACK, 683), (mozjs_anon_sym_LT, 827),
     (mozjs_anon_sym_DQUOTE, 407), (mozjs_anon_sym_SQUOTE, 409),
     (mozjs_anon_sym_class, 411), (mozjs_anon_sym_async, 633),
     (mozjs_anon_sym_function, 415), (mozjs_anon_sym_new, 637),
     (mozjs_anon_sym_PLUS, 642), (mozjs_anon_sym_DASH, 642),
     (mozjs_anon_sym_SLASH, 665), (mozjs_anon_sym_BANG, 644),
     (mozjs_anon_sym_TILDE, 644), (mozjs_anon_sym_typeof, 642),
     (mozjs_anon_sym_void, 642), (mozjs_anon_sym_delete, 642),
     (mozjs_anon_sym_PLUS_PLUS, 695), (mozjs_anon_sym_DASH_DASH, 695),
     (mozjs_sym_comment, 5), (mozjs_anon_sym_BQUOTE, 669),
     (mozjs_sym_number, 437), (mozjs_sym_private_property_identifier, 649),
     (mozjs_sym_this, 441), (mozjs_sym_super, 441),
     (mozjs_sym_true, 441), (mozjs_sym_false, 441),
     (mozjs_sym_null, 441), (mozjs_sym_undefined, 651),
     (mozjs_anon_sym_AT, 93), (mozjs_anon_sym_static, 622),
     (mozjs_anon_sym_get, 622), (mozjs_anon_sym_set, 622),
     (mozjs_sym_html_comment, 5)]"

definition mozjs_parse_row_280 :: "(TSSymbol \<times> nat) list" where
  "mozjs_parse_row_280 =
    [(mozjs_sym_import, 1340), (mozjs_sym_parenthesized_expression, 578),
     (mozjs_sym_expression, 966), (mozjs_sym_primary_expression, 584),
     (mozjs_sym_yield_expression, 638), (mozjs_sym_object, 645),
     (mozjs_sym_object_pattern, 1808), (mozjs_sym_array, 645),
     (mozjs_sym_array_pattern, 1808), (mozjs_sym_jsx_element, 638),
     (mozjs_sym_jsx_opening_element, 1152), (mozjs_sym_jsx_self_closing_element, 638),
     (mozjs_sym_class, 645), (mozjs_sym_function_expression, 645),
     (mozjs_sym_generator_function, 645), (mozjs_sym_arrow_function, 645),
     (mozjs_sym_call_expression, 645), (mozjs_sym_new_expression, 587),
     (mozjs_sym_await_expression, 638), (mozjs_sym_member_expression, 578),
     (mozjs_sym_subscript_expression, 578), (mozjs_sym_assignment_expression, 638),
     (mozjs_sym__augmented_assignment_lhs, 1147), (mozjs_sym_augmented_assignment_expression,
       638),
     (mozjs_sym__destructuring_pattern, 1808), (mozjs_sym_ternary_expression, 638),
     (mozjs_sym_binary_expression, 638), (mozjs_sym_unary_expression, 638),
     (mozjs_sym_update_expression, 638), (mozjs_sym_string, 645),
     (mozjs_sym_template_string, 645), (mozjs_sym_regex, 645),
     (mozjs_sym_meta_property, 645), (mozjs_sym_decorator, 1112),
     (mozjs_sym_formal_parameters, 1838), (mozjs_aux_sym_export_statement_repeat1, 1395),
     (mozjs_sym_identifier, 620), (mozjs_anon_sym_export, 622),
     (mozjs_anon_sym_LBRACE, 465), (mozjs_anon_sym_import, 390),
     (mozjs_anon_sym_let, 622), (mozjs_anon_sym_await, 627),
     (mozjs_anon_sym_LPAREN, 657), (mozjs_anon_sym_yield, 629),
     (mozjs_anon_sym_LBRACK, 683), (mozjs_anon_sym_LT, 827),
     (mozjs_anon_sym_DQUOTE, 407), (mozjs_anon_sym_SQUOTE, 409),
     (mozjs_anon_sym_class, 411), (mozjs_anon_sym_async, 633),
     (mozjs_anon_sym_function, 415), (mozjs_anon_sym_new, 637),
     (mozjs_anon_sym_PLUS, 642), (mozjs_anon_sym_DASH, 642),
     (mozjs_anon_sym_SLASH, 665), (mozjs_anon_sym_BANG, 644),
     (mozjs_anon_sym_TILDE, 644), (mozjs_anon_sym_typeof, 642),
     (mozjs_anon_sym_void, 642), (mozjs_anon_sym_delete, 642),
     (mozjs_anon_sym_PLUS_PLUS, 695), (mozjs_anon_sym_DASH_DASH, 695),
     (mozjs_sym_comment, 5), (mozjs_anon_sym_BQUOTE, 669),
     (mozjs_sym_number, 437), (mozjs_sym_private_property_identifier, 649),
     (mozjs_sym_this, 441), (mozjs_sym_super, 441),
     (mozjs_sym_true, 441), (mozjs_sym_false, 441),
     (mozjs_sym_null, 441), (mozjs_sym_undefined, 651),
     (mozjs_anon_sym_AT, 93), (mozjs_anon_sym_static, 622),
     (mozjs_anon_sym_get, 622), (mozjs_anon_sym_set, 622),
     (mozjs_sym_html_comment, 5)]"

definition mozjs_parse_row_281 :: "(TSSymbol \<times> nat) list" where
  "mozjs_parse_row_281 =
    [(mozjs_sym_import, 1340), (mozjs_sym_parenthesized_expression, 578),
     (mozjs_sym_expression, 967), (mozjs_sym_primary_expression, 584),
     (mozjs_sym_yield_expression, 638), (mozjs_sym_object, 645),
     (mozjs_sym_object_pattern, 1808), (mozjs_sym_array, 645),
     (mozjs_sym_array_pattern, 1808), (mozjs_sym_jsx_element, 638),
     (mozjs_sym_jsx_opening_element, 1152), (mozjs_sym_jsx_self_closing_element, 638),
     (mozjs_sym_class, 645), (mozjs_sym_function_expression, 645),
     (mozjs_sym_generator_function, 645), (mozjs_sym_arrow_function, 645),
     (mozjs_sym_call_expression, 645), (mozjs_sym_new_expression, 587),
     (mozjs_sym_await_expression, 638), (mozjs_sym_member_expression, 578),
     (mozjs_sym_subscript_expression, 578), (mozjs_sym_assignment_expression, 638),
     (mozjs_sym__augmented_assignment_lhs, 1147), (mozjs_sym_augmented_assignment_expression,
       638),
     (mozjs_sym__destructuring_pattern, 1808), (mozjs_sym_ternary_expression, 638),
     (mozjs_sym_binary_expression, 638), (mozjs_sym_unary_expression, 638),
     (mozjs_sym_update_expression, 638), (mozjs_sym_string, 645),
     (mozjs_sym_template_string, 645), (mozjs_sym_regex, 645),
     (mozjs_sym_meta_property, 645), (mozjs_sym_decorator, 1112),
     (mozjs_sym_formal_parameters, 1838), (mozjs_aux_sym_export_statement_repeat1, 1395),
     (mozjs_sym_identifier, 620), (mozjs_anon_sym_export, 622),
     (mozjs_anon_sym_LBRACE, 465), (mozjs_anon_sym_import, 390),
     (mozjs_anon_sym_let, 622), (mozjs_anon_sym_await, 627),
     (mozjs_anon_sym_LPAREN, 657), (mozjs_anon_sym_yield, 629),
     (mozjs_anon_sym_LBRACK, 683), (mozjs_anon_sym_LT, 827),
     (mozjs_anon_sym_DQUOTE, 407), (mozjs_anon_sym_SQUOTE, 409),
     (mozjs_anon_sym_class, 411), (mozjs_anon_sym_async, 633),
     (mozjs_anon_sym_function, 415), (mozjs_anon_sym_new, 637),
     (mozjs_anon_sym_PLUS, 642), (mozjs_anon_sym_DASH, 642),
     (mozjs_anon_sym_SLASH, 665), (mozjs_anon_sym_BANG, 644),
     (mozjs_anon_sym_TILDE, 644), (mozjs_anon_sym_typeof, 642),
     (mozjs_anon_sym_void, 642), (mozjs_anon_sym_delete, 642),
     (mozjs_anon_sym_PLUS_PLUS, 695), (mozjs_anon_sym_DASH_DASH, 695),
     (mozjs_sym_comment, 5), (mozjs_anon_sym_BQUOTE, 669),
     (mozjs_sym_number, 437), (mozjs_sym_private_property_identifier, 649),
     (mozjs_sym_this, 441), (mozjs_sym_super, 441),
     (mozjs_sym_true, 441), (mozjs_sym_false, 441),
     (mozjs_sym_null, 441), (mozjs_sym_undefined, 651),
     (mozjs_anon_sym_AT, 93), (mozjs_anon_sym_static, 622),
     (mozjs_anon_sym_get, 622), (mozjs_anon_sym_set, 622),
     (mozjs_sym_html_comment, 5)]"

definition mozjs_parse_row_282 :: "(TSSymbol \<times> nat) list" where
  "mozjs_parse_row_282 =
    [(mozjs_sym_import, 1340), (mozjs_sym_parenthesized_expression, 578),
     (mozjs_sym_expression, 971), (mozjs_sym_primary_expression, 584),
     (mozjs_sym_yield_expression, 638), (mozjs_sym_object, 645),
     (mozjs_sym_object_pattern, 1808), (mozjs_sym_array, 645),
     (mozjs_sym_array_pattern, 1808), (mozjs_sym_jsx_element, 638),
     (mozjs_sym_jsx_opening_element, 1152), (mozjs_sym_jsx_self_closing_element, 638),
     (mozjs_sym_class, 645), (mozjs_sym_function_expression, 645),
     (mozjs_sym_generator_function, 645), (mozjs_sym_arrow_function, 645),
     (mozjs_sym_call_expression, 645), (mozjs_sym_new_expression, 587),
     (mozjs_sym_await_expression, 638), (mozjs_sym_member_expression, 578),
     (mozjs_sym_subscript_expression, 578), (mozjs_sym_assignment_expression, 638),
     (mozjs_sym__augmented_assignment_lhs, 1147), (mozjs_sym_augmented_assignment_expression,
       638),
     (mozjs_sym__destructuring_pattern, 1808), (mozjs_sym_ternary_expression, 638),
     (mozjs_sym_binary_expression, 638), (mozjs_sym_unary_expression, 638),
     (mozjs_sym_update_expression, 638), (mozjs_sym_string, 645),
     (mozjs_sym_template_string, 645), (mozjs_sym_regex, 645),
     (mozjs_sym_meta_property, 645), (mozjs_sym_decorator, 1112),
     (mozjs_sym_formal_parameters, 1838), (mozjs_aux_sym_export_statement_repeat1, 1395),
     (mozjs_sym_identifier, 620), (mozjs_anon_sym_export, 622),
     (mozjs_anon_sym_LBRACE, 465), (mozjs_anon_sym_import, 390),
     (mozjs_anon_sym_let, 622), (mozjs_anon_sym_await, 627),
     (mozjs_anon_sym_LPAREN, 657), (mozjs_anon_sym_yield, 629),
     (mozjs_anon_sym_LBRACK, 683), (mozjs_anon_sym_LT, 827),
     (mozjs_anon_sym_DQUOTE, 407), (mozjs_anon_sym_SQUOTE, 409),
     (mozjs_anon_sym_class, 411), (mozjs_anon_sym_async, 633),
     (mozjs_anon_sym_function, 415), (mozjs_anon_sym_new, 637),
     (mozjs_anon_sym_PLUS, 642), (mozjs_anon_sym_DASH, 642),
     (mozjs_anon_sym_SLASH, 665), (mozjs_anon_sym_BANG, 644),
     (mozjs_anon_sym_TILDE, 644), (mozjs_anon_sym_typeof, 642),
     (mozjs_anon_sym_void, 642), (mozjs_anon_sym_delete, 642),
     (mozjs_anon_sym_PLUS_PLUS, 695), (mozjs_anon_sym_DASH_DASH, 695),
     (mozjs_sym_comment, 5), (mozjs_anon_sym_BQUOTE, 669),
     (mozjs_sym_number, 437), (mozjs_sym_private_property_identifier, 649),
     (mozjs_sym_this, 441), (mozjs_sym_super, 441),
     (mozjs_sym_true, 441), (mozjs_sym_false, 441),
     (mozjs_sym_null, 441), (mozjs_sym_undefined, 651),
     (mozjs_anon_sym_AT, 93), (mozjs_anon_sym_static, 622),
     (mozjs_anon_sym_get, 622), (mozjs_anon_sym_set, 622),
     (mozjs_sym_html_comment, 5)]"

definition mozjs_parse_row_283 :: "(TSSymbol \<times> nat) list" where
  "mozjs_parse_row_283 =
    [(mozjs_sym_import, 1340), (mozjs_sym_parenthesized_expression, 578),
     (mozjs_sym_expression, 929), (mozjs_sym_primary_expression, 584),
     (mozjs_sym_yield_expression, 638), (mozjs_sym_object, 645),
     (mozjs_sym_object_pattern, 1808), (mozjs_sym_array, 645),
     (mozjs_sym_array_pattern, 1808), (mozjs_sym_jsx_element, 638),
     (mozjs_sym_jsx_opening_element, 1152), (mozjs_sym_jsx_self_closing_element, 638),
     (mozjs_sym_class, 645), (mozjs_sym_function_expression, 645),
     (mozjs_sym_generator_function, 645), (mozjs_sym_arrow_function, 645),
     (mozjs_sym_call_expression, 645), (mozjs_sym_new_expression, 587),
     (mozjs_sym_await_expression, 638), (mozjs_sym_member_expression, 578),
     (mozjs_sym_subscript_expression, 578), (mozjs_sym_assignment_expression, 638),
     (mozjs_sym__augmented_assignment_lhs, 1147), (mozjs_sym_augmented_assignment_expression,
       638),
     (mozjs_sym__destructuring_pattern, 1808), (mozjs_sym_ternary_expression, 638),
     (mozjs_sym_binary_expression, 638), (mozjs_sym_unary_expression, 638),
     (mozjs_sym_update_expression, 638), (mozjs_sym_string, 645),
     (mozjs_sym_template_string, 645), (mozjs_sym_regex, 645),
     (mozjs_sym_meta_property, 645), (mozjs_sym_decorator, 1112),
     (mozjs_sym_formal_parameters, 1838), (mozjs_aux_sym_export_statement_repeat1, 1395),
     (mozjs_sym_identifier, 620), (mozjs_anon_sym_export, 622),
     (mozjs_anon_sym_LBRACE, 465), (mozjs_anon_sym_import, 390),
     (mozjs_anon_sym_let, 622), (mozjs_anon_sym_await, 627),
     (mozjs_anon_sym_LPAREN, 657), (mozjs_anon_sym_yield, 629),
     (mozjs_anon_sym_LBRACK, 683), (mozjs_anon_sym_LT, 827),
     (mozjs_anon_sym_DQUOTE, 407), (mozjs_anon_sym_SQUOTE, 409),
     (mozjs_anon_sym_class, 411), (mozjs_anon_sym_async, 633),
     (mozjs_anon_sym_function, 415), (mozjs_anon_sym_new, 637),
     (mozjs_anon_sym_PLUS, 642), (mozjs_anon_sym_DASH, 642),
     (mozjs_anon_sym_SLASH, 665), (mozjs_anon_sym_BANG, 644),
     (mozjs_anon_sym_TILDE, 644), (mozjs_anon_sym_typeof, 642),
     (mozjs_anon_sym_void, 642), (mozjs_anon_sym_delete, 642),
     (mozjs_anon_sym_PLUS_PLUS, 695), (mozjs_anon_sym_DASH_DASH, 695),
     (mozjs_sym_comment, 5), (mozjs_anon_sym_BQUOTE, 669),
     (mozjs_sym_number, 437), (mozjs_sym_private_property_identifier, 649),
     (mozjs_sym_this, 441), (mozjs_sym_super, 441),
     (mozjs_sym_true, 441), (mozjs_sym_false, 441),
     (mozjs_sym_null, 441), (mozjs_sym_undefined, 651),
     (mozjs_anon_sym_AT, 93), (mozjs_anon_sym_static, 622),
     (mozjs_anon_sym_get, 622), (mozjs_anon_sym_set, 622),
     (mozjs_sym_html_comment, 5)]"

definition mozjs_parse_row_284 :: "(TSSymbol \<times> nat) list" where
  "mozjs_parse_row_284 =
    [(mozjs_sym_import, 1340), (mozjs_sym_parenthesized_expression, 578),
     (mozjs_sym_expression, 893), (mozjs_sym_primary_expression, 584),
     (mozjs_sym_yield_expression, 638), (mozjs_sym_object, 645),
     (mozjs_sym_object_pattern, 1808), (mozjs_sym_array, 645),
     (mozjs_sym_array_pattern, 1808), (mozjs_sym_jsx_element, 638),
     (mozjs_sym_jsx_opening_element, 1152), (mozjs_sym_jsx_self_closing_element, 638),
     (mozjs_sym_class, 645), (mozjs_sym_function_expression, 645),
     (mozjs_sym_generator_function, 645), (mozjs_sym_arrow_function, 645),
     (mozjs_sym_call_expression, 645), (mozjs_sym_new_expression, 587),
     (mozjs_sym_await_expression, 638), (mozjs_sym_member_expression, 578),
     (mozjs_sym_subscript_expression, 578), (mozjs_sym_assignment_expression, 638),
     (mozjs_sym__augmented_assignment_lhs, 1147), (mozjs_sym_augmented_assignment_expression,
       638),
     (mozjs_sym__destructuring_pattern, 1808), (mozjs_sym_ternary_expression, 638),
     (mozjs_sym_binary_expression, 638), (mozjs_sym_unary_expression, 638),
     (mozjs_sym_update_expression, 638), (mozjs_sym_string, 645),
     (mozjs_sym_template_string, 645), (mozjs_sym_regex, 645),
     (mozjs_sym_meta_property, 645), (mozjs_sym_decorator, 1112),
     (mozjs_sym_formal_parameters, 1838), (mozjs_aux_sym_export_statement_repeat1, 1395),
     (mozjs_sym_identifier, 620), (mozjs_anon_sym_export, 622),
     (mozjs_anon_sym_LBRACE, 465), (mozjs_anon_sym_import, 390),
     (mozjs_anon_sym_let, 622), (mozjs_anon_sym_await, 627),
     (mozjs_anon_sym_LPAREN, 657), (mozjs_anon_sym_yield, 629),
     (mozjs_anon_sym_LBRACK, 683), (mozjs_anon_sym_LT, 827),
     (mozjs_anon_sym_DQUOTE, 407), (mozjs_anon_sym_SQUOTE, 409),
     (mozjs_anon_sym_class, 411), (mozjs_anon_sym_async, 633),
     (mozjs_anon_sym_function, 415), (mozjs_anon_sym_new, 637),
     (mozjs_anon_sym_PLUS, 642), (mozjs_anon_sym_DASH, 642),
     (mozjs_anon_sym_SLASH, 665), (mozjs_anon_sym_BANG, 644),
     (mozjs_anon_sym_TILDE, 644), (mozjs_anon_sym_typeof, 642),
     (mozjs_anon_sym_void, 642), (mozjs_anon_sym_delete, 642),
     (mozjs_anon_sym_PLUS_PLUS, 695), (mozjs_anon_sym_DASH_DASH, 695),
     (mozjs_sym_comment, 5), (mozjs_anon_sym_BQUOTE, 669),
     (mozjs_sym_number, 437), (mozjs_sym_private_property_identifier, 649),
     (mozjs_sym_this, 441), (mozjs_sym_super, 441),
     (mozjs_sym_true, 441), (mozjs_sym_false, 441),
     (mozjs_sym_null, 441), (mozjs_sym_undefined, 651),
     (mozjs_anon_sym_AT, 93), (mozjs_anon_sym_static, 622),
     (mozjs_anon_sym_get, 622), (mozjs_anon_sym_set, 622),
     (mozjs_sym_html_comment, 5)]"

definition mozjs_parse_row_285 :: "(TSSymbol \<times> nat) list" where
  "mozjs_parse_row_285 =
    [(mozjs_sym_import, 1340), (mozjs_sym_parenthesized_expression, 578),
     (mozjs_sym_expression, 894), (mozjs_sym_primary_expression, 584),
     (mozjs_sym_yield_expression, 638), (mozjs_sym_object, 645),
     (mozjs_sym_object_pattern, 1808), (mozjs_sym_array, 645),
     (mozjs_sym_array_pattern, 1808), (mozjs_sym_jsx_element, 638),
     (mozjs_sym_jsx_opening_element, 1152), (mozjs_sym_jsx_self_closing_element, 638),
     (mozjs_sym_class, 645), (mozjs_sym_function_expression, 645),
     (mozjs_sym_generator_function, 645), (mozjs_sym_arrow_function, 645),
     (mozjs_sym_call_expression, 645), (mozjs_sym_new_expression, 587),
     (mozjs_sym_await_expression, 638), (mozjs_sym_member_expression, 578),
     (mozjs_sym_subscript_expression, 578), (mozjs_sym_assignment_expression, 638),
     (mozjs_sym__augmented_assignment_lhs, 1147), (mozjs_sym_augmented_assignment_expression,
       638),
     (mozjs_sym__destructuring_pattern, 1808), (mozjs_sym_ternary_expression, 638),
     (mozjs_sym_binary_expression, 638), (mozjs_sym_unary_expression, 638),
     (mozjs_sym_update_expression, 638), (mozjs_sym_string, 645),
     (mozjs_sym_template_string, 645), (mozjs_sym_regex, 645),
     (mozjs_sym_meta_property, 645), (mozjs_sym_decorator, 1112),
     (mozjs_sym_formal_parameters, 1838), (mozjs_aux_sym_export_statement_repeat1, 1395),
     (mozjs_sym_identifier, 620), (mozjs_anon_sym_export, 622),
     (mozjs_anon_sym_LBRACE, 465), (mozjs_anon_sym_import, 390),
     (mozjs_anon_sym_let, 622), (mozjs_anon_sym_await, 627),
     (mozjs_anon_sym_LPAREN, 657), (mozjs_anon_sym_yield, 629),
     (mozjs_anon_sym_LBRACK, 683), (mozjs_anon_sym_LT, 827),
     (mozjs_anon_sym_DQUOTE, 407), (mozjs_anon_sym_SQUOTE, 409),
     (mozjs_anon_sym_class, 411), (mozjs_anon_sym_async, 633),
     (mozjs_anon_sym_function, 415), (mozjs_anon_sym_new, 637),
     (mozjs_anon_sym_PLUS, 642), (mozjs_anon_sym_DASH, 642),
     (mozjs_anon_sym_SLASH, 665), (mozjs_anon_sym_BANG, 644),
     (mozjs_anon_sym_TILDE, 644), (mozjs_anon_sym_typeof, 642),
     (mozjs_anon_sym_void, 642), (mozjs_anon_sym_delete, 642),
     (mozjs_anon_sym_PLUS_PLUS, 695), (mozjs_anon_sym_DASH_DASH, 695),
     (mozjs_sym_comment, 5), (mozjs_anon_sym_BQUOTE, 669),
     (mozjs_sym_number, 437), (mozjs_sym_private_property_identifier, 649),
     (mozjs_sym_this, 441), (mozjs_sym_super, 441),
     (mozjs_sym_true, 441), (mozjs_sym_false, 441),
     (mozjs_sym_null, 441), (mozjs_sym_undefined, 651),
     (mozjs_anon_sym_AT, 93), (mozjs_anon_sym_static, 622),
     (mozjs_anon_sym_get, 622), (mozjs_anon_sym_set, 622),
     (mozjs_sym_html_comment, 5)]"

definition mozjs_parse_row_286 :: "(TSSymbol \<times> nat) list" where
  "mozjs_parse_row_286 =
    [(mozjs_sym_import, 1340), (mozjs_sym_parenthesized_expression, 578),
     (mozjs_sym_expression, 895), (mozjs_sym_primary_expression, 584),
     (mozjs_sym_yield_expression, 638), (mozjs_sym_object, 645),
     (mozjs_sym_object_pattern, 1808), (mozjs_sym_array, 645),
     (mozjs_sym_array_pattern, 1808), (mozjs_sym_jsx_element, 638),
     (mozjs_sym_jsx_opening_element, 1152), (mozjs_sym_jsx_self_closing_element, 638),
     (mozjs_sym_class, 645), (mozjs_sym_function_expression, 645),
     (mozjs_sym_generator_function, 645), (mozjs_sym_arrow_function, 645),
     (mozjs_sym_call_expression, 645), (mozjs_sym_new_expression, 587),
     (mozjs_sym_await_expression, 638), (mozjs_sym_member_expression, 578),
     (mozjs_sym_subscript_expression, 578), (mozjs_sym_assignment_expression, 638),
     (mozjs_sym__augmented_assignment_lhs, 1147), (mozjs_sym_augmented_assignment_expression,
       638),
     (mozjs_sym__destructuring_pattern, 1808), (mozjs_sym_ternary_expression, 638),
     (mozjs_sym_binary_expression, 638), (mozjs_sym_unary_expression, 638),
     (mozjs_sym_update_expression, 638), (mozjs_sym_string, 645),
     (mozjs_sym_template_string, 645), (mozjs_sym_regex, 645),
     (mozjs_sym_meta_property, 645), (mozjs_sym_decorator, 1112),
     (mozjs_sym_formal_parameters, 1838), (mozjs_aux_sym_export_statement_repeat1, 1395),
     (mozjs_sym_identifier, 620), (mozjs_anon_sym_export, 622),
     (mozjs_anon_sym_LBRACE, 465), (mozjs_anon_sym_import, 390),
     (mozjs_anon_sym_let, 622), (mozjs_anon_sym_await, 627),
     (mozjs_anon_sym_LPAREN, 657), (mozjs_anon_sym_yield, 629),
     (mozjs_anon_sym_LBRACK, 683), (mozjs_anon_sym_LT, 827),
     (mozjs_anon_sym_DQUOTE, 407), (mozjs_anon_sym_SQUOTE, 409),
     (mozjs_anon_sym_class, 411), (mozjs_anon_sym_async, 633),
     (mozjs_anon_sym_function, 415), (mozjs_anon_sym_new, 637),
     (mozjs_anon_sym_PLUS, 642), (mozjs_anon_sym_DASH, 642),
     (mozjs_anon_sym_SLASH, 665), (mozjs_anon_sym_BANG, 644),
     (mozjs_anon_sym_TILDE, 644), (mozjs_anon_sym_typeof, 642),
     (mozjs_anon_sym_void, 642), (mozjs_anon_sym_delete, 642),
     (mozjs_anon_sym_PLUS_PLUS, 695), (mozjs_anon_sym_DASH_DASH, 695),
     (mozjs_sym_comment, 5), (mozjs_anon_sym_BQUOTE, 669),
     (mozjs_sym_number, 437), (mozjs_sym_private_property_identifier, 649),
     (mozjs_sym_this, 441), (mozjs_sym_super, 441),
     (mozjs_sym_true, 441), (mozjs_sym_false, 441),
     (mozjs_sym_null, 441), (mozjs_sym_undefined, 651),
     (mozjs_anon_sym_AT, 93), (mozjs_anon_sym_static, 622),
     (mozjs_anon_sym_get, 622), (mozjs_anon_sym_set, 622),
     (mozjs_sym_html_comment, 5)]"

definition mozjs_parse_row_287 :: "(TSSymbol \<times> nat) list" where
  "mozjs_parse_row_287 =
    [(mozjs_sym_import, 1340), (mozjs_sym_parenthesized_expression, 578),
     (mozjs_sym_expression, 896), (mozjs_sym_primary_expression, 584),
     (mozjs_sym_yield_expression, 638), (mozjs_sym_object, 645),
     (mozjs_sym_object_pattern, 1808), (mozjs_sym_array, 645),
     (mozjs_sym_array_pattern, 1808), (mozjs_sym_jsx_element, 638),
     (mozjs_sym_jsx_opening_element, 1152), (mozjs_sym_jsx_self_closing_element, 638),
     (mozjs_sym_class, 645), (mozjs_sym_function_expression, 645),
     (mozjs_sym_generator_function, 645), (mozjs_sym_arrow_function, 645),
     (mozjs_sym_call_expression, 645), (mozjs_sym_new_expression, 587),
     (mozjs_sym_await_expression, 638), (mozjs_sym_member_expression, 578),
     (mozjs_sym_subscript_expression, 578), (mozjs_sym_assignment_expression, 638),
     (mozjs_sym__augmented_assignment_lhs, 1147), (mozjs_sym_augmented_assignment_expression,
       638),
     (mozjs_sym__destructuring_pattern, 1808), (mozjs_sym_ternary_expression, 638),
     (mozjs_sym_binary_expression, 638), (mozjs_sym_unary_expression, 638),
     (mozjs_sym_update_expression, 638), (mozjs_sym_string, 645),
     (mozjs_sym_template_string, 645), (mozjs_sym_regex, 645),
     (mozjs_sym_meta_property, 645), (mozjs_sym_decorator, 1112),
     (mozjs_sym_formal_parameters, 1838), (mozjs_aux_sym_export_statement_repeat1, 1395),
     (mozjs_sym_identifier, 620), (mozjs_anon_sym_export, 622),
     (mozjs_anon_sym_LBRACE, 465), (mozjs_anon_sym_import, 390),
     (mozjs_anon_sym_let, 622), (mozjs_anon_sym_await, 627),
     (mozjs_anon_sym_LPAREN, 657), (mozjs_anon_sym_yield, 629),
     (mozjs_anon_sym_LBRACK, 683), (mozjs_anon_sym_LT, 827),
     (mozjs_anon_sym_DQUOTE, 407), (mozjs_anon_sym_SQUOTE, 409),
     (mozjs_anon_sym_class, 411), (mozjs_anon_sym_async, 633),
     (mozjs_anon_sym_function, 415), (mozjs_anon_sym_new, 637),
     (mozjs_anon_sym_PLUS, 642), (mozjs_anon_sym_DASH, 642),
     (mozjs_anon_sym_SLASH, 665), (mozjs_anon_sym_BANG, 644),
     (mozjs_anon_sym_TILDE, 644), (mozjs_anon_sym_typeof, 642),
     (mozjs_anon_sym_void, 642), (mozjs_anon_sym_delete, 642),
     (mozjs_anon_sym_PLUS_PLUS, 695), (mozjs_anon_sym_DASH_DASH, 695),
     (mozjs_sym_comment, 5), (mozjs_anon_sym_BQUOTE, 669),
     (mozjs_sym_number, 437), (mozjs_sym_private_property_identifier, 649),
     (mozjs_sym_this, 441), (mozjs_sym_super, 441),
     (mozjs_sym_true, 441), (mozjs_sym_false, 441),
     (mozjs_sym_null, 441), (mozjs_sym_undefined, 651),
     (mozjs_anon_sym_AT, 93), (mozjs_anon_sym_static, 622),
     (mozjs_anon_sym_get, 622), (mozjs_anon_sym_set, 622),
     (mozjs_sym_html_comment, 5)]"

definition mozjs_parse_row_288 :: "(TSSymbol \<times> nat) list" where
  "mozjs_parse_row_288 =
    [(mozjs_sym_import, 1340), (mozjs_sym_parenthesized_expression, 578),
     (mozjs_sym_expression, 897), (mozjs_sym_primary_expression, 584),
     (mozjs_sym_yield_expression, 638), (mozjs_sym_object, 645),
     (mozjs_sym_object_pattern, 1808), (mozjs_sym_array, 645),
     (mozjs_sym_array_pattern, 1808), (mozjs_sym_jsx_element, 638),
     (mozjs_sym_jsx_opening_element, 1152), (mozjs_sym_jsx_self_closing_element, 638),
     (mozjs_sym_class, 645), (mozjs_sym_function_expression, 645),
     (mozjs_sym_generator_function, 645), (mozjs_sym_arrow_function, 645),
     (mozjs_sym_call_expression, 645), (mozjs_sym_new_expression, 587),
     (mozjs_sym_await_expression, 638), (mozjs_sym_member_expression, 578),
     (mozjs_sym_subscript_expression, 578), (mozjs_sym_assignment_expression, 638),
     (mozjs_sym__augmented_assignment_lhs, 1147), (mozjs_sym_augmented_assignment_expression,
       638),
     (mozjs_sym__destructuring_pattern, 1808), (mozjs_sym_ternary_expression, 638),
     (mozjs_sym_binary_expression, 638), (mozjs_sym_unary_expression, 638),
     (mozjs_sym_update_expression, 638), (mozjs_sym_string, 645),
     (mozjs_sym_template_string, 645), (mozjs_sym_regex, 645),
     (mozjs_sym_meta_property, 645), (mozjs_sym_decorator, 1112),
     (mozjs_sym_formal_parameters, 1838), (mozjs_aux_sym_export_statement_repeat1, 1395),
     (mozjs_sym_identifier, 620), (mozjs_anon_sym_export, 622),
     (mozjs_anon_sym_LBRACE, 465), (mozjs_anon_sym_import, 390),
     (mozjs_anon_sym_let, 622), (mozjs_anon_sym_await, 627),
     (mozjs_anon_sym_LPAREN, 657), (mozjs_anon_sym_yield, 629),
     (mozjs_anon_sym_LBRACK, 683), (mozjs_anon_sym_LT, 827),
     (mozjs_anon_sym_DQUOTE, 407), (mozjs_anon_sym_SQUOTE, 409),
     (mozjs_anon_sym_class, 411), (mozjs_anon_sym_async, 633),
     (mozjs_anon_sym_function, 415), (mozjs_anon_sym_new, 637),
     (mozjs_anon_sym_PLUS, 642), (mozjs_anon_sym_DASH, 642),
     (mozjs_anon_sym_SLASH, 665), (mozjs_anon_sym_BANG, 644),
     (mozjs_anon_sym_TILDE, 644), (mozjs_anon_sym_typeof, 642),
     (mozjs_anon_sym_void, 642), (mozjs_anon_sym_delete, 642),
     (mozjs_anon_sym_PLUS_PLUS, 695), (mozjs_anon_sym_DASH_DASH, 695),
     (mozjs_sym_comment, 5), (mozjs_anon_sym_BQUOTE, 669),
     (mozjs_sym_number, 437), (mozjs_sym_private_property_identifier, 649),
     (mozjs_sym_this, 441), (mozjs_sym_super, 441),
     (mozjs_sym_true, 441), (mozjs_sym_false, 441),
     (mozjs_sym_null, 441), (mozjs_sym_undefined, 651),
     (mozjs_anon_sym_AT, 93), (mozjs_anon_sym_static, 622),
     (mozjs_anon_sym_get, 622), (mozjs_anon_sym_set, 622),
     (mozjs_sym_html_comment, 5)]"

definition mozjs_parse_row_289 :: "(TSSymbol \<times> nat) list" where
  "mozjs_parse_row_289 =
    [(mozjs_sym_import, 1340), (mozjs_sym_parenthesized_expression, 578),
     (mozjs_sym_expression, 898), (mozjs_sym_primary_expression, 584),
     (mozjs_sym_yield_expression, 638), (mozjs_sym_object, 645),
     (mozjs_sym_object_pattern, 1808), (mozjs_sym_array, 645),
     (mozjs_sym_array_pattern, 1808), (mozjs_sym_jsx_element, 638),
     (mozjs_sym_jsx_opening_element, 1152), (mozjs_sym_jsx_self_closing_element, 638),
     (mozjs_sym_class, 645), (mozjs_sym_function_expression, 645),
     (mozjs_sym_generator_function, 645), (mozjs_sym_arrow_function, 645),
     (mozjs_sym_call_expression, 645), (mozjs_sym_new_expression, 587),
     (mozjs_sym_await_expression, 638), (mozjs_sym_member_expression, 578),
     (mozjs_sym_subscript_expression, 578), (mozjs_sym_assignment_expression, 638),
     (mozjs_sym__augmented_assignment_lhs, 1147), (mozjs_sym_augmented_assignment_expression,
       638),
     (mozjs_sym__destructuring_pattern, 1808), (mozjs_sym_ternary_expression, 638),
     (mozjs_sym_binary_expression, 638), (mozjs_sym_unary_expression, 638),
     (mozjs_sym_update_expression, 638), (mozjs_sym_string, 645),
     (mozjs_sym_template_string, 645), (mozjs_sym_regex, 645),
     (mozjs_sym_meta_property, 645), (mozjs_sym_decorator, 1112),
     (mozjs_sym_formal_parameters, 1838), (mozjs_aux_sym_export_statement_repeat1, 1395),
     (mozjs_sym_identifier, 620), (mozjs_anon_sym_export, 622),
     (mozjs_anon_sym_LBRACE, 465), (mozjs_anon_sym_import, 390),
     (mozjs_anon_sym_let, 622), (mozjs_anon_sym_await, 627),
     (mozjs_anon_sym_LPAREN, 657), (mozjs_anon_sym_yield, 629),
     (mozjs_anon_sym_LBRACK, 683), (mozjs_anon_sym_LT, 827),
     (mozjs_anon_sym_DQUOTE, 407), (mozjs_anon_sym_SQUOTE, 409),
     (mozjs_anon_sym_class, 411), (mozjs_anon_sym_async, 633),
     (mozjs_anon_sym_function, 415), (mozjs_anon_sym_new, 637),
     (mozjs_anon_sym_PLUS, 642), (mozjs_anon_sym_DASH, 642),
     (mozjs_anon_sym_SLASH, 665), (mozjs_anon_sym_BANG, 644),
     (mozjs_anon_sym_TILDE, 644), (mozjs_anon_sym_typeof, 642),
     (mozjs_anon_sym_void, 642), (mozjs_anon_sym_delete, 642),
     (mozjs_anon_sym_PLUS_PLUS, 695), (mozjs_anon_sym_DASH_DASH, 695),
     (mozjs_sym_comment, 5), (mozjs_anon_sym_BQUOTE, 669),
     (mozjs_sym_number, 437), (mozjs_sym_private_property_identifier, 649),
     (mozjs_sym_this, 441), (mozjs_sym_super, 441),
     (mozjs_sym_true, 441), (mozjs_sym_false, 441),
     (mozjs_sym_null, 441), (mozjs_sym_undefined, 651),
     (mozjs_anon_sym_AT, 93), (mozjs_anon_sym_static, 622),
     (mozjs_anon_sym_get, 622), (mozjs_anon_sym_set, 622),
     (mozjs_sym_html_comment, 5)]"

definition mozjs_parse_row_290 :: "(TSSymbol \<times> nat) list" where
  "mozjs_parse_row_290 =
    [(mozjs_sym_import, 1340), (mozjs_sym_parenthesized_expression, 578),
     (mozjs_sym_expression, 899), (mozjs_sym_primary_expression, 584),
     (mozjs_sym_yield_expression, 638), (mozjs_sym_object, 645),
     (mozjs_sym_object_pattern, 1808), (mozjs_sym_array, 645),
     (mozjs_sym_array_pattern, 1808), (mozjs_sym_jsx_element, 638),
     (mozjs_sym_jsx_opening_element, 1152), (mozjs_sym_jsx_self_closing_element, 638),
     (mozjs_sym_class, 645), (mozjs_sym_function_expression, 645),
     (mozjs_sym_generator_function, 645), (mozjs_sym_arrow_function, 645),
     (mozjs_sym_call_expression, 645), (mozjs_sym_new_expression, 587),
     (mozjs_sym_await_expression, 638), (mozjs_sym_member_expression, 578),
     (mozjs_sym_subscript_expression, 578), (mozjs_sym_assignment_expression, 638),
     (mozjs_sym__augmented_assignment_lhs, 1147), (mozjs_sym_augmented_assignment_expression,
       638),
     (mozjs_sym__destructuring_pattern, 1808), (mozjs_sym_ternary_expression, 638),
     (mozjs_sym_binary_expression, 638), (mozjs_sym_unary_expression, 638),
     (mozjs_sym_update_expression, 638), (mozjs_sym_string, 645),
     (mozjs_sym_template_string, 645), (mozjs_sym_regex, 645),
     (mozjs_sym_meta_property, 645), (mozjs_sym_decorator, 1112),
     (mozjs_sym_formal_parameters, 1838), (mozjs_aux_sym_export_statement_repeat1, 1395),
     (mozjs_sym_identifier, 620), (mozjs_anon_sym_export, 622),
     (mozjs_anon_sym_LBRACE, 465), (mozjs_anon_sym_import, 390),
     (mozjs_anon_sym_let, 622), (mozjs_anon_sym_await, 627),
     (mozjs_anon_sym_LPAREN, 657), (mozjs_anon_sym_yield, 629),
     (mozjs_anon_sym_LBRACK, 683), (mozjs_anon_sym_LT, 827),
     (mozjs_anon_sym_DQUOTE, 407), (mozjs_anon_sym_SQUOTE, 409),
     (mozjs_anon_sym_class, 411), (mozjs_anon_sym_async, 633),
     (mozjs_anon_sym_function, 415), (mozjs_anon_sym_new, 637),
     (mozjs_anon_sym_PLUS, 642), (mozjs_anon_sym_DASH, 642),
     (mozjs_anon_sym_SLASH, 665), (mozjs_anon_sym_BANG, 644),
     (mozjs_anon_sym_TILDE, 644), (mozjs_anon_sym_typeof, 642),
     (mozjs_anon_sym_void, 642), (mozjs_anon_sym_delete, 642),
     (mozjs_anon_sym_PLUS_PLUS, 695), (mozjs_anon_sym_DASH_DASH, 695),
     (mozjs_sym_comment, 5), (mozjs_anon_sym_BQUOTE, 669),
     (mozjs_sym_number, 437), (mozjs_sym_private_property_identifier, 649),
     (mozjs_sym_this, 441), (mozjs_sym_super, 441),
     (mozjs_sym_true, 441), (mozjs_sym_false, 441),
     (mozjs_sym_null, 441), (mozjs_sym_undefined, 651),
     (mozjs_anon_sym_AT, 93), (mozjs_anon_sym_static, 622),
     (mozjs_anon_sym_get, 622), (mozjs_anon_sym_set, 622),
     (mozjs_sym_html_comment, 5)]"

definition mozjs_parse_row_291 :: "(TSSymbol \<times> nat) list" where
  "mozjs_parse_row_291 =
    [(mozjs_sym_import, 1340), (mozjs_sym_parenthesized_expression, 578),
     (mozjs_sym_expression, 904), (mozjs_sym_primary_expression, 584),
     (mozjs_sym_yield_expression, 638), (mozjs_sym_object, 645),
     (mozjs_sym_object_pattern, 1808), (mozjs_sym_array, 645),
     (mozjs_sym_array_pattern, 1808), (mozjs_sym_jsx_element, 638),
     (mozjs_sym_jsx_opening_element, 1152), (mozjs_sym_jsx_self_closing_element, 638),
     (mozjs_sym_class, 645), (mozjs_sym_function_expression, 645),
     (mozjs_sym_generator_function, 645), (mozjs_sym_arrow_function, 645),
     (mozjs_sym_call_expression, 645), (mozjs_sym_new_expression, 587),
     (mozjs_sym_await_expression, 638), (mozjs_sym_member_expression, 578),
     (mozjs_sym_subscript_expression, 578), (mozjs_sym_assignment_expression, 638),
     (mozjs_sym__augmented_assignment_lhs, 1147), (mozjs_sym_augmented_assignment_expression,
       638),
     (mozjs_sym__destructuring_pattern, 1808), (mozjs_sym_ternary_expression, 638),
     (mozjs_sym_binary_expression, 638), (mozjs_sym_unary_expression, 638),
     (mozjs_sym_update_expression, 638), (mozjs_sym_string, 645),
     (mozjs_sym_template_string, 645), (mozjs_sym_regex, 645),
     (mozjs_sym_meta_property, 645), (mozjs_sym_decorator, 1112),
     (mozjs_sym_formal_parameters, 1838), (mozjs_aux_sym_export_statement_repeat1, 1395),
     (mozjs_sym_identifier, 620), (mozjs_anon_sym_export, 622),
     (mozjs_anon_sym_LBRACE, 465), (mozjs_anon_sym_import, 390),
     (mozjs_anon_sym_let, 622), (mozjs_anon_sym_await, 627),
     (mozjs_anon_sym_LPAREN, 657), (mozjs_anon_sym_yield, 629),
     (mozjs_anon_sym_LBRACK, 683), (mozjs_anon_sym_LT, 827),
     (mozjs_anon_sym_DQUOTE, 407), (mozjs_anon_sym_SQUOTE, 409),
     (mozjs_anon_sym_class, 411), (mozjs_anon_sym_async, 633),
     (mozjs_anon_sym_function, 415), (mozjs_anon_sym_new, 637),
     (mozjs_anon_sym_PLUS, 642), (mozjs_anon_sym_DASH, 642),
     (mozjs_anon_sym_SLASH, 665), (mozjs_anon_sym_BANG, 644),
     (mozjs_anon_sym_TILDE, 644), (mozjs_anon_sym_typeof, 642),
     (mozjs_anon_sym_void, 642), (mozjs_anon_sym_delete, 642),
     (mozjs_anon_sym_PLUS_PLUS, 695), (mozjs_anon_sym_DASH_DASH, 695),
     (mozjs_sym_comment, 5), (mozjs_anon_sym_BQUOTE, 669),
     (mozjs_sym_number, 437), (mozjs_sym_private_property_identifier, 649),
     (mozjs_sym_this, 441), (mozjs_sym_super, 441),
     (mozjs_sym_true, 441), (mozjs_sym_false, 441),
     (mozjs_sym_null, 441), (mozjs_sym_undefined, 651),
     (mozjs_anon_sym_AT, 93), (mozjs_anon_sym_static, 622),
     (mozjs_anon_sym_get, 622), (mozjs_anon_sym_set, 622),
     (mozjs_sym_html_comment, 5)]"

definition mozjs_parse_row_292 :: "(TSSymbol \<times> nat) list" where
  "mozjs_parse_row_292 =
    [(mozjs_sym_import, 1340), (mozjs_sym_parenthesized_expression, 525),
     (mozjs_sym_expression, 828), (mozjs_sym_primary_expression, 584),
     (mozjs_sym_yield_expression, 638), (mozjs_sym_object, 645),
     (mozjs_sym_object_pattern, 1827), (mozjs_sym_array, 645),
     (mozjs_sym_array_pattern, 1827), (mozjs_sym_jsx_element, 638),
     (mozjs_sym_jsx_opening_element, 1152), (mozjs_sym_jsx_self_closing_element, 638),
     (mozjs_sym_class, 645), (mozjs_sym_function_expression, 645),
     (mozjs_sym_generator_function, 645), (mozjs_sym_arrow_function, 645),
     (mozjs_sym_call_expression, 645), (mozjs_sym_new_expression, 587),
     (mozjs_sym_await_expression, 638), (mozjs_sym_member_expression, 525),
     (mozjs_sym_subscript_expression, 525), (mozjs_sym_assignment_expression, 638),
     (mozjs_sym__augmented_assignment_lhs, 1145), (mozjs_sym_augmented_assignment_expression,
       638),
     (mozjs_sym__destructuring_pattern, 1827), (mozjs_sym_ternary_expression, 638),
     (mozjs_sym_binary_expression, 638), (mozjs_sym_unary_expression, 638),
     (mozjs_sym_update_expression, 638), (mozjs_sym_string, 645),
     (mozjs_sym_template_string, 645), (mozjs_sym_regex, 645),
     (mozjs_sym_meta_property, 645), (mozjs_sym_decorator, 1112),
     (mozjs_sym_formal_parameters, 1777), (mozjs_aux_sym_export_statement_repeat1, 1395),
     (mozjs_sym_identifier, 384), (mozjs_anon_sym_export, 386),
     (mozjs_anon_sym_LBRACE, 388), (mozjs_anon_sym_import, 390),
     (mozjs_anon_sym_let, 386), (mozjs_anon_sym_await, 392),
     (mozjs_anon_sym_LPAREN, 657), (mozjs_anon_sym_yield, 397),
     (mozjs_anon_sym_LBRACK, 661), (mozjs_anon_sym_LT, 827),
     (mozjs_anon_sym_DQUOTE, 407), (mozjs_anon_sym_SQUOTE, 409),
     (mozjs_anon_sym_class, 411), (mozjs_anon_sym_async, 413),
     (mozjs_anon_sym_function, 415), (mozjs_anon_sym_new, 419),
     (mozjs_anon_sym_PLUS, 427), (mozjs_anon_sym_DASH, 427),
     (mozjs_anon_sym_SLASH, 665), (mozjs_anon_sym_BANG, 429),
     (mozjs_anon_sym_TILDE, 429), (mozjs_anon_sym_typeof, 427),
     (mozjs_anon_sym_void, 427), (mozjs_anon_sym_delete, 427),
     (mozjs_anon_sym_PLUS_PLUS, 667), (mozjs_anon_sym_DASH_DASH, 667),
     (mozjs_sym_comment, 5), (mozjs_anon_sym_BQUOTE, 669),
     (mozjs_sym_number, 437), (mozjs_sym_private_property_identifier, 439),
     (mozjs_sym_this, 441), (mozjs_sym_super, 441),
     (mozjs_sym_true, 441), (mozjs_sym_false, 441),
     (mozjs_sym_null, 441), (mozjs_sym_undefined, 443),
     (mozjs_anon_sym_AT, 93), (mozjs_anon_sym_static, 386),
     (mozjs_anon_sym_get, 386), (mozjs_anon_sym_set, 386),
     (mozjs_sym_html_comment, 5)]"

definition mozjs_parse_row_293 :: "(TSSymbol \<times> nat) list" where
  "mozjs_parse_row_293 =
    [(mozjs_sym_import, 1333), (mozjs_sym_parenthesized_expression, 559),
     (mozjs_sym_expression, 689), (mozjs_sym_primary_expression, 693),
     (mozjs_sym_yield_expression, 743), (mozjs_sym_object, 793),
     (mozjs_sym_object_pattern, 1811), (mozjs_sym_array, 793),
     (mozjs_sym_array_pattern, 1811), (mozjs_sym_jsx_element, 743),
     (mozjs_sym_jsx_opening_element, 1158), (mozjs_sym_jsx_self_closing_element, 743),
     (mozjs_sym_class, 793), (mozjs_sym_function_expression, 793),
     (mozjs_sym_generator_function, 793), (mozjs_sym_arrow_function, 793),
     (mozjs_sym_call_expression, 793), (mozjs_sym_new_expression, 692),
     (mozjs_sym_await_expression, 743), (mozjs_sym_member_expression, 559),
     (mozjs_sym_subscript_expression, 559), (mozjs_sym_assignment_expression, 743),
     (mozjs_sym__augmented_assignment_lhs, 1143), (mozjs_sym_augmented_assignment_expression,
       743),
     (mozjs_sym__destructuring_pattern, 1811), (mozjs_sym_ternary_expression, 743),
     (mozjs_sym_binary_expression, 743), (mozjs_sym_unary_expression, 743),
     (mozjs_sym_update_expression, 743), (mozjs_sym_string, 793),
     (mozjs_sym_template_string, 793), (mozjs_sym_regex, 793),
     (mozjs_sym_meta_property, 793), (mozjs_sym_decorator, 1112),
     (mozjs_sym_formal_parameters, 1812), (mozjs_aux_sym_export_statement_repeat1, 1331),
     (mozjs_sym_identifier, 551), (mozjs_anon_sym_export, 553),
     (mozjs_anon_sym_LBRACE, 309), (mozjs_anon_sym_import, 315),
     (mozjs_anon_sym_let, 553), (mozjs_anon_sym_await, 555),
     (mozjs_anon_sym_LPAREN, 37), (mozjs_anon_sym_yield, 557),
     (mozjs_anon_sym_LBRACK, 59), (mozjs_anon_sym_LT, 61),
     (mozjs_anon_sym_DQUOTE, 63), (mozjs_anon_sym_SQUOTE, 65),
     (mozjs_anon_sym_class, 336), (mozjs_anon_sym_async, 561),
     (mozjs_anon_sym_function, 340), (mozjs_anon_sym_new, 565),
     (mozjs_anon_sym_PLUS, 573), (mozjs_anon_sym_DASH, 573),
     (mozjs_anon_sym_SLASH, 677), (mozjs_anon_sym_BANG, 575),
     (mozjs_anon_sym_TILDE, 575), (mozjs_anon_sym_typeof, 573),
     (mozjs_anon_sym_void, 573), (mozjs_anon_sym_delete, 573),
     (mozjs_anon_sym_PLUS_PLUS, 679), (mozjs_anon_sym_DASH_DASH, 679),
     (mozjs_sym_comment, 5), (mozjs_anon_sym_BQUOTE, 83),
     (mozjs_sym_number, 85), (mozjs_sym_private_property_identifier, 580),
     (mozjs_sym_this, 89), (mozjs_sym_super, 89),
     (mozjs_sym_true, 89), (mozjs_sym_false, 89),
     (mozjs_sym_null, 89), (mozjs_sym_undefined, 582),
     (mozjs_anon_sym_AT, 93), (mozjs_anon_sym_static, 553),
     (mozjs_anon_sym_get, 553), (mozjs_anon_sym_set, 553),
     (mozjs_sym_html_comment, 5)]"

definition mozjs_parse_row_294 :: "(TSSymbol \<times> nat) list" where
  "mozjs_parse_row_294 =
    [(mozjs_sym_import, 1333), (mozjs_sym_parenthesized_expression, 559),
     (mozjs_sym_expression, 812), (mozjs_sym_primary_expression, 693),
     (mozjs_sym_yield_expression, 743), (mozjs_sym_object, 793),
     (mozjs_sym_object_pattern, 1811), (mozjs_sym_array, 793),
     (mozjs_sym_array_pattern, 1811), (mozjs_sym_jsx_element, 743),
     (mozjs_sym_jsx_opening_element, 1158), (mozjs_sym_jsx_self_closing_element, 743),
     (mozjs_sym_class, 793), (mozjs_sym_function_expression, 793),
     (mozjs_sym_generator_function, 793), (mozjs_sym_arrow_function, 793),
     (mozjs_sym_call_expression, 793), (mozjs_sym_new_expression, 692),
     (mozjs_sym_await_expression, 743), (mozjs_sym_member_expression, 559),
     (mozjs_sym_subscript_expression, 559), (mozjs_sym_assignment_expression, 743),
     (mozjs_sym__augmented_assignment_lhs, 1143), (mozjs_sym_augmented_assignment_expression,
       743),
     (mozjs_sym__destructuring_pattern, 1811), (mozjs_sym_ternary_expression, 743),
     (mozjs_sym_binary_expression, 743), (mozjs_sym_unary_expression, 743),
     (mozjs_sym_update_expression, 743), (mozjs_sym_string, 793),
     (mozjs_sym_template_string, 793), (mozjs_sym_regex, 793),
     (mozjs_sym_meta_property, 793), (mozjs_sym_decorator, 1112),
     (mozjs_sym_formal_parameters, 1812), (mozjs_aux_sym_export_statement_repeat1, 1331),
     (mozjs_sym_identifier, 551), (mozjs_anon_sym_export, 553),
     (mozjs_anon_sym_LBRACE, 309), (mozjs_anon_sym_import, 315),
     (mozjs_anon_sym_let, 553), (mozjs_anon_sym_await, 555),
     (mozjs_anon_sym_LPAREN, 37), (mozjs_anon_sym_yield, 557),
     (mozjs_anon_sym_LBRACK, 59), (mozjs_anon_sym_LT, 61),
     (mozjs_anon_sym_DQUOTE, 63), (mozjs_anon_sym_SQUOTE, 65),
     (mozjs_anon_sym_class, 336), (mozjs_anon_sym_async, 561),
     (mozjs_anon_sym_function, 340), (mozjs_anon_sym_new, 565),
     (mozjs_anon_sym_PLUS, 573), (mozjs_anon_sym_DASH, 573),
     (mozjs_anon_sym_SLASH, 677), (mozjs_anon_sym_BANG, 575),
     (mozjs_anon_sym_TILDE, 575), (mozjs_anon_sym_typeof, 573),
     (mozjs_anon_sym_void, 573), (mozjs_anon_sym_delete, 573),
     (mozjs_anon_sym_PLUS_PLUS, 679), (mozjs_anon_sym_DASH_DASH, 679),
     (mozjs_sym_comment, 5), (mozjs_anon_sym_BQUOTE, 83),
     (mozjs_sym_number, 85), (mozjs_sym_private_property_identifier, 580),
     (mozjs_sym_this, 89), (mozjs_sym_super, 89),
     (mozjs_sym_true, 89), (mozjs_sym_false, 89),
     (mozjs_sym_null, 89), (mozjs_sym_undefined, 582),
     (mozjs_anon_sym_AT, 93), (mozjs_anon_sym_static, 553),
     (mozjs_anon_sym_get, 553), (mozjs_anon_sym_set, 553),
     (mozjs_sym_html_comment, 5)]"

definition mozjs_parse_row_295 :: "(TSSymbol \<times> nat) list" where
  "mozjs_parse_row_295 =
    [(mozjs_sym_import, 1333), (mozjs_sym_parenthesized_expression, 559),
     (mozjs_sym_expression, 703), (mozjs_sym_primary_expression, 693),
     (mozjs_sym_yield_expression, 743), (mozjs_sym_object, 793),
     (mozjs_sym_object_pattern, 1811), (mozjs_sym_array, 793),
     (mozjs_sym_array_pattern, 1811), (mozjs_sym_jsx_element, 743),
     (mozjs_sym_jsx_opening_element, 1158), (mozjs_sym_jsx_self_closing_element, 743),
     (mozjs_sym_class, 793), (mozjs_sym_function_expression, 793),
     (mozjs_sym_generator_function, 793), (mozjs_sym_arrow_function, 793),
     (mozjs_sym_call_expression, 793), (mozjs_sym_new_expression, 692),
     (mozjs_sym_await_expression, 743), (mozjs_sym_member_expression, 559),
     (mozjs_sym_subscript_expression, 559), (mozjs_sym_assignment_expression, 743),
     (mozjs_sym__augmented_assignment_lhs, 1143), (mozjs_sym_augmented_assignment_expression,
       743),
     (mozjs_sym__destructuring_pattern, 1811), (mozjs_sym_ternary_expression, 743),
     (mozjs_sym_binary_expression, 743), (mozjs_sym_unary_expression, 743),
     (mozjs_sym_update_expression, 743), (mozjs_sym_string, 793),
     (mozjs_sym_template_string, 793), (mozjs_sym_regex, 793),
     (mozjs_sym_meta_property, 793), (mozjs_sym_decorator, 1112),
     (mozjs_sym_formal_parameters, 1812), (mozjs_aux_sym_export_statement_repeat1, 1331),
     (mozjs_sym_identifier, 551), (mozjs_anon_sym_export, 553),
     (mozjs_anon_sym_LBRACE, 309), (mozjs_anon_sym_import, 315),
     (mozjs_anon_sym_let, 553), (mozjs_anon_sym_await, 555),
     (mozjs_anon_sym_LPAREN, 37), (mozjs_anon_sym_yield, 557),
     (mozjs_anon_sym_LBRACK, 59), (mozjs_anon_sym_LT, 61),
     (mozjs_anon_sym_DQUOTE, 63), (mozjs_anon_sym_SQUOTE, 65),
     (mozjs_anon_sym_class, 336), (mozjs_anon_sym_async, 561),
     (mozjs_anon_sym_function, 340), (mozjs_anon_sym_new, 565),
     (mozjs_anon_sym_PLUS, 573), (mozjs_anon_sym_DASH, 573),
     (mozjs_anon_sym_SLASH, 677), (mozjs_anon_sym_BANG, 575),
     (mozjs_anon_sym_TILDE, 575), (mozjs_anon_sym_typeof, 573),
     (mozjs_anon_sym_void, 573), (mozjs_anon_sym_delete, 573),
     (mozjs_anon_sym_PLUS_PLUS, 679), (mozjs_anon_sym_DASH_DASH, 679),
     (mozjs_sym_comment, 5), (mozjs_anon_sym_BQUOTE, 83),
     (mozjs_sym_number, 85), (mozjs_sym_private_property_identifier, 580),
     (mozjs_sym_this, 89), (mozjs_sym_super, 89),
     (mozjs_sym_true, 89), (mozjs_sym_false, 89),
     (mozjs_sym_null, 89), (mozjs_sym_undefined, 582),
     (mozjs_anon_sym_AT, 93), (mozjs_anon_sym_static, 553),
     (mozjs_anon_sym_get, 553), (mozjs_anon_sym_set, 553),
     (mozjs_sym_html_comment, 5)]"

definition mozjs_parse_row_296 :: "(TSSymbol \<times> nat) list" where
  "mozjs_parse_row_296 =
    [(mozjs_sym_import, 1333), (mozjs_sym_parenthesized_expression, 559),
     (mozjs_sym_expression, 707), (mozjs_sym_primary_expression, 693),
     (mozjs_sym_yield_expression, 743), (mozjs_sym_object, 793),
     (mozjs_sym_object_pattern, 1811), (mozjs_sym_array, 793),
     (mozjs_sym_array_pattern, 1811), (mozjs_sym_jsx_element, 743),
     (mozjs_sym_jsx_opening_element, 1158), (mozjs_sym_jsx_self_closing_element, 743),
     (mozjs_sym_class, 793), (mozjs_sym_function_expression, 793),
     (mozjs_sym_generator_function, 793), (mozjs_sym_arrow_function, 793),
     (mozjs_sym_call_expression, 793), (mozjs_sym_new_expression, 692),
     (mozjs_sym_await_expression, 743), (mozjs_sym_member_expression, 559),
     (mozjs_sym_subscript_expression, 559), (mozjs_sym_assignment_expression, 743),
     (mozjs_sym__augmented_assignment_lhs, 1143), (mozjs_sym_augmented_assignment_expression,
       743),
     (mozjs_sym__destructuring_pattern, 1811), (mozjs_sym_ternary_expression, 743),
     (mozjs_sym_binary_expression, 743), (mozjs_sym_unary_expression, 743),
     (mozjs_sym_update_expression, 743), (mozjs_sym_string, 793),
     (mozjs_sym_template_string, 793), (mozjs_sym_regex, 793),
     (mozjs_sym_meta_property, 793), (mozjs_sym_decorator, 1112),
     (mozjs_sym_formal_parameters, 1812), (mozjs_aux_sym_export_statement_repeat1, 1331),
     (mozjs_sym_identifier, 551), (mozjs_anon_sym_export, 553),
     (mozjs_anon_sym_LBRACE, 309), (mozjs_anon_sym_import, 315),
     (mozjs_anon_sym_let, 553), (mozjs_anon_sym_await, 555),
     (mozjs_anon_sym_LPAREN, 37), (mozjs_anon_sym_yield, 557),
     (mozjs_anon_sym_LBRACK, 59), (mozjs_anon_sym_LT, 61),
     (mozjs_anon_sym_DQUOTE, 63), (mozjs_anon_sym_SQUOTE, 65),
     (mozjs_anon_sym_class, 336), (mozjs_anon_sym_async, 561),
     (mozjs_anon_sym_function, 340), (mozjs_anon_sym_new, 565),
     (mozjs_anon_sym_PLUS, 573), (mozjs_anon_sym_DASH, 573),
     (mozjs_anon_sym_SLASH, 677), (mozjs_anon_sym_BANG, 575),
     (mozjs_anon_sym_TILDE, 575), (mozjs_anon_sym_typeof, 573),
     (mozjs_anon_sym_void, 573), (mozjs_anon_sym_delete, 573),
     (mozjs_anon_sym_PLUS_PLUS, 679), (mozjs_anon_sym_DASH_DASH, 679),
     (mozjs_sym_comment, 5), (mozjs_anon_sym_BQUOTE, 83),
     (mozjs_sym_number, 85), (mozjs_sym_private_property_identifier, 580),
     (mozjs_sym_this, 89), (mozjs_sym_super, 89),
     (mozjs_sym_true, 89), (mozjs_sym_false, 89),
     (mozjs_sym_null, 89), (mozjs_sym_undefined, 582),
     (mozjs_anon_sym_AT, 93), (mozjs_anon_sym_static, 553),
     (mozjs_anon_sym_get, 553), (mozjs_anon_sym_set, 553),
     (mozjs_sym_html_comment, 5)]"

definition mozjs_parse_row_297 :: "(TSSymbol \<times> nat) list" where
  "mozjs_parse_row_297 =
    [(mozjs_sym_import, 1333), (mozjs_sym_parenthesized_expression, 559),
     (mozjs_sym_expression, 709), (mozjs_sym_primary_expression, 693),
     (mozjs_sym_yield_expression, 743), (mozjs_sym_object, 793),
     (mozjs_sym_object_pattern, 1811), (mozjs_sym_array, 793),
     (mozjs_sym_array_pattern, 1811), (mozjs_sym_jsx_element, 743),
     (mozjs_sym_jsx_opening_element, 1158), (mozjs_sym_jsx_self_closing_element, 743),
     (mozjs_sym_class, 793), (mozjs_sym_function_expression, 793),
     (mozjs_sym_generator_function, 793), (mozjs_sym_arrow_function, 793),
     (mozjs_sym_call_expression, 793), (mozjs_sym_new_expression, 692),
     (mozjs_sym_await_expression, 743), (mozjs_sym_member_expression, 559),
     (mozjs_sym_subscript_expression, 559), (mozjs_sym_assignment_expression, 743),
     (mozjs_sym__augmented_assignment_lhs, 1143), (mozjs_sym_augmented_assignment_expression,
       743),
     (mozjs_sym__destructuring_pattern, 1811), (mozjs_sym_ternary_expression, 743),
     (mozjs_sym_binary_expression, 743), (mozjs_sym_unary_expression, 743),
     (mozjs_sym_update_expression, 743), (mozjs_sym_string, 793),
     (mozjs_sym_template_string, 793), (mozjs_sym_regex, 793),
     (mozjs_sym_meta_property, 793), (mozjs_sym_decorator, 1112),
     (mozjs_sym_formal_parameters, 1812), (mozjs_aux_sym_export_statement_repeat1, 1331),
     (mozjs_sym_identifier, 551), (mozjs_anon_sym_export, 553),
     (mozjs_anon_sym_LBRACE, 309), (mozjs_anon_sym_import, 315),
     (mozjs_anon_sym_let, 553), (mozjs_anon_sym_await, 555),
     (mozjs_anon_sym_LPAREN, 37), (mozjs_anon_sym_yield, 557),
     (mozjs_anon_sym_LBRACK, 59), (mozjs_anon_sym_LT, 61),
     (mozjs_anon_sym_DQUOTE, 63), (mozjs_anon_sym_SQUOTE, 65),
     (mozjs_anon_sym_class, 336), (mozjs_anon_sym_async, 561),
     (mozjs_anon_sym_function, 340), (mozjs_anon_sym_new, 565),
     (mozjs_anon_sym_PLUS, 573), (mozjs_anon_sym_DASH, 573),
     (mozjs_anon_sym_SLASH, 677), (mozjs_anon_sym_BANG, 575),
     (mozjs_anon_sym_TILDE, 575), (mozjs_anon_sym_typeof, 573),
     (mozjs_anon_sym_void, 573), (mozjs_anon_sym_delete, 573),
     (mozjs_anon_sym_PLUS_PLUS, 679), (mozjs_anon_sym_DASH_DASH, 679),
     (mozjs_sym_comment, 5), (mozjs_anon_sym_BQUOTE, 83),
     (mozjs_sym_number, 85), (mozjs_sym_private_property_identifier, 580),
     (mozjs_sym_this, 89), (mozjs_sym_super, 89),
     (mozjs_sym_true, 89), (mozjs_sym_false, 89),
     (mozjs_sym_null, 89), (mozjs_sym_undefined, 582),
     (mozjs_anon_sym_AT, 93), (mozjs_anon_sym_static, 553),
     (mozjs_anon_sym_get, 553), (mozjs_anon_sym_set, 553),
     (mozjs_sym_html_comment, 5)]"

definition mozjs_parse_row_298 :: "(TSSymbol \<times> nat) list" where
  "mozjs_parse_row_298 =
    [(mozjs_sym_import, 1340), (mozjs_sym_parenthesized_expression, 499),
     (mozjs_sym_expression, 983), (mozjs_sym_primary_expression, 584),
     (mozjs_sym_yield_expression, 638), (mozjs_sym_object, 645),
     (mozjs_sym_object_pattern, 1766), (mozjs_sym_array, 645),
     (mozjs_sym_array_pattern, 1766), (mozjs_sym_jsx_element, 638),
     (mozjs_sym_jsx_opening_element, 1152), (mozjs_sym_jsx_self_closing_element, 638),
     (mozjs_sym_class, 645), (mozjs_sym_function_expression, 645),
     (mozjs_sym_generator_function, 645), (mozjs_sym_arrow_function, 645),
     (mozjs_sym_call_expression, 645), (mozjs_sym_new_expression, 587),
     (mozjs_sym_await_expression, 638), (mozjs_sym_member_expression, 499),
     (mozjs_sym_subscript_expression, 499), (mozjs_sym_assignment_expression, 638),
     (mozjs_sym__augmented_assignment_lhs, 1144), (mozjs_sym_augmented_assignment_expression,
       638),
     (mozjs_sym__destructuring_pattern, 1766), (mozjs_sym_ternary_expression, 638),
     (mozjs_sym_binary_expression, 638), (mozjs_sym_unary_expression, 638),
     (mozjs_sym_update_expression, 638), (mozjs_sym_string, 645),
     (mozjs_sym_template_string, 645), (mozjs_sym_regex, 645),
     (mozjs_sym_meta_property, 645), (mozjs_sym_decorator, 1112),
     (mozjs_sym_formal_parameters, 1828), (mozjs_aux_sym_export_statement_repeat1, 1395),
     (mozjs_sym_identifier, 461), (mozjs_anon_sym_export, 463),
     (mozjs_anon_sym_LBRACE, 465), (mozjs_anon_sym_import, 390),
     (mozjs_anon_sym_let, 463), (mozjs_anon_sym_await, 467),
     (mozjs_anon_sym_LPAREN, 657), (mozjs_anon_sym_yield, 469),
     (mozjs_anon_sym_LBRACK, 683), (mozjs_anon_sym_LT, 827),
     (mozjs_anon_sym_DQUOTE, 407), (mozjs_anon_sym_SQUOTE, 409),
     (mozjs_anon_sym_class, 411), (mozjs_anon_sym_async, 476),
     (mozjs_anon_sym_function, 415), (mozjs_anon_sym_new, 478),
     (mozjs_anon_sym_PLUS, 483), (mozjs_anon_sym_DASH, 483),
     (mozjs_anon_sym_SLASH, 665), (mozjs_anon_sym_BANG, 485),
     (mozjs_anon_sym_TILDE, 485), (mozjs_anon_sym_typeof, 483),
     (mozjs_anon_sym_void, 483), (mozjs_anon_sym_delete, 483),
     (mozjs_anon_sym_PLUS_PLUS, 691), (mozjs_anon_sym_DASH_DASH, 691),
     (mozjs_sym_comment, 5), (mozjs_anon_sym_BQUOTE, 669),
     (mozjs_sym_number, 437), (mozjs_sym_private_property_identifier, 490),
     (mozjs_sym_this, 441), (mozjs_sym_super, 441),
     (mozjs_sym_true, 441), (mozjs_sym_false, 441),
     (mozjs_sym_null, 441), (mozjs_sym_undefined, 492),
     (mozjs_anon_sym_AT, 93), (mozjs_anon_sym_static, 463),
     (mozjs_anon_sym_get, 463), (mozjs_anon_sym_set, 463),
     (mozjs_sym_html_comment, 5)]"

definition mozjs_parse_row_299 :: "(TSSymbol \<times> nat) list" where
  "mozjs_parse_row_299 =
    [(mozjs_sym_import, 1333), (mozjs_sym_parenthesized_expression, 559),
     (mozjs_sym_expression, 710), (mozjs_sym_primary_expression, 693),
     (mozjs_sym_yield_expression, 743), (mozjs_sym_object, 793),
     (mozjs_sym_object_pattern, 1811), (mozjs_sym_array, 793),
     (mozjs_sym_array_pattern, 1811), (mozjs_sym_jsx_element, 743),
     (mozjs_sym_jsx_opening_element, 1158), (mozjs_sym_jsx_self_closing_element, 743),
     (mozjs_sym_class, 793), (mozjs_sym_function_expression, 793),
     (mozjs_sym_generator_function, 793), (mozjs_sym_arrow_function, 793),
     (mozjs_sym_call_expression, 793), (mozjs_sym_new_expression, 692),
     (mozjs_sym_await_expression, 743), (mozjs_sym_member_expression, 559),
     (mozjs_sym_subscript_expression, 559), (mozjs_sym_assignment_expression, 743),
     (mozjs_sym__augmented_assignment_lhs, 1143), (mozjs_sym_augmented_assignment_expression,
       743),
     (mozjs_sym__destructuring_pattern, 1811), (mozjs_sym_ternary_expression, 743),
     (mozjs_sym_binary_expression, 743), (mozjs_sym_unary_expression, 743),
     (mozjs_sym_update_expression, 743), (mozjs_sym_string, 793),
     (mozjs_sym_template_string, 793), (mozjs_sym_regex, 793),
     (mozjs_sym_meta_property, 793), (mozjs_sym_decorator, 1112),
     (mozjs_sym_formal_parameters, 1812), (mozjs_aux_sym_export_statement_repeat1, 1331),
     (mozjs_sym_identifier, 551), (mozjs_anon_sym_export, 553),
     (mozjs_anon_sym_LBRACE, 309), (mozjs_anon_sym_import, 315),
     (mozjs_anon_sym_let, 553), (mozjs_anon_sym_await, 555),
     (mozjs_anon_sym_LPAREN, 37), (mozjs_anon_sym_yield, 557),
     (mozjs_anon_sym_LBRACK, 59), (mozjs_anon_sym_LT, 61),
     (mozjs_anon_sym_DQUOTE, 63), (mozjs_anon_sym_SQUOTE, 65),
     (mozjs_anon_sym_class, 336), (mozjs_anon_sym_async, 561),
     (mozjs_anon_sym_function, 340), (mozjs_anon_sym_new, 565),
     (mozjs_anon_sym_PLUS, 573), (mozjs_anon_sym_DASH, 573),
     (mozjs_anon_sym_SLASH, 677), (mozjs_anon_sym_BANG, 575),
     (mozjs_anon_sym_TILDE, 575), (mozjs_anon_sym_typeof, 573),
     (mozjs_anon_sym_void, 573), (mozjs_anon_sym_delete, 573),
     (mozjs_anon_sym_PLUS_PLUS, 679), (mozjs_anon_sym_DASH_DASH, 679),
     (mozjs_sym_comment, 5), (mozjs_anon_sym_BQUOTE, 83),
     (mozjs_sym_number, 85), (mozjs_sym_private_property_identifier, 580),
     (mozjs_sym_this, 89), (mozjs_sym_super, 89),
     (mozjs_sym_true, 89), (mozjs_sym_false, 89),
     (mozjs_sym_null, 89), (mozjs_sym_undefined, 582),
     (mozjs_anon_sym_AT, 93), (mozjs_anon_sym_static, 553),
     (mozjs_anon_sym_get, 553), (mozjs_anon_sym_set, 553),
     (mozjs_sym_html_comment, 5)]"

definition mozjs_parse_row_300 :: "(TSSymbol \<times> nat) list" where
  "mozjs_parse_row_300 =
    [(mozjs_sym_import, 1333), (mozjs_sym_parenthesized_expression, 559),
     (mozjs_sym_expression, 712), (mozjs_sym_primary_expression, 693),
     (mozjs_sym_yield_expression, 743), (mozjs_sym_object, 793),
     (mozjs_sym_object_pattern, 1811), (mozjs_sym_array, 793),
     (mozjs_sym_array_pattern, 1811), (mozjs_sym_jsx_element, 743),
     (mozjs_sym_jsx_opening_element, 1158), (mozjs_sym_jsx_self_closing_element, 743),
     (mozjs_sym_class, 793), (mozjs_sym_function_expression, 793),
     (mozjs_sym_generator_function, 793), (mozjs_sym_arrow_function, 793),
     (mozjs_sym_call_expression, 793), (mozjs_sym_new_expression, 692),
     (mozjs_sym_await_expression, 743), (mozjs_sym_member_expression, 559),
     (mozjs_sym_subscript_expression, 559), (mozjs_sym_assignment_expression, 743),
     (mozjs_sym__augmented_assignment_lhs, 1143), (mozjs_sym_augmented_assignment_expression,
       743),
     (mozjs_sym__destructuring_pattern, 1811), (mozjs_sym_ternary_expression, 743),
     (mozjs_sym_binary_expression, 743), (mozjs_sym_unary_expression, 743),
     (mozjs_sym_update_expression, 743), (mozjs_sym_string, 793),
     (mozjs_sym_template_string, 793), (mozjs_sym_regex, 793),
     (mozjs_sym_meta_property, 793), (mozjs_sym_decorator, 1112),
     (mozjs_sym_formal_parameters, 1812), (mozjs_aux_sym_export_statement_repeat1, 1331),
     (mozjs_sym_identifier, 551), (mozjs_anon_sym_export, 553),
     (mozjs_anon_sym_LBRACE, 309), (mozjs_anon_sym_import, 315),
     (mozjs_anon_sym_let, 553), (mozjs_anon_sym_await, 555),
     (mozjs_anon_sym_LPAREN, 37), (mozjs_anon_sym_yield, 557),
     (mozjs_anon_sym_LBRACK, 59), (mozjs_anon_sym_LT, 61),
     (mozjs_anon_sym_DQUOTE, 63), (mozjs_anon_sym_SQUOTE, 65),
     (mozjs_anon_sym_class, 336), (mozjs_anon_sym_async, 561),
     (mozjs_anon_sym_function, 340), (mozjs_anon_sym_new, 565),
     (mozjs_anon_sym_PLUS, 573), (mozjs_anon_sym_DASH, 573),
     (mozjs_anon_sym_SLASH, 677), (mozjs_anon_sym_BANG, 575),
     (mozjs_anon_sym_TILDE, 575), (mozjs_anon_sym_typeof, 573),
     (mozjs_anon_sym_void, 573), (mozjs_anon_sym_delete, 573),
     (mozjs_anon_sym_PLUS_PLUS, 679), (mozjs_anon_sym_DASH_DASH, 679),
     (mozjs_sym_comment, 5), (mozjs_anon_sym_BQUOTE, 83),
     (mozjs_sym_number, 85), (mozjs_sym_private_property_identifier, 580),
     (mozjs_sym_this, 89), (mozjs_sym_super, 89),
     (mozjs_sym_true, 89), (mozjs_sym_false, 89),
     (mozjs_sym_null, 89), (mozjs_sym_undefined, 582),
     (mozjs_anon_sym_AT, 93), (mozjs_anon_sym_static, 553),
     (mozjs_anon_sym_get, 553), (mozjs_anon_sym_set, 553),
     (mozjs_sym_html_comment, 5)]"

definition mozjs_parse_row_301 :: "(TSSymbol \<times> nat) list" where
  "mozjs_parse_row_301 =
    [(mozjs_sym_import, 1333), (mozjs_sym_parenthesized_expression, 559),
     (mozjs_sym_expression, 713), (mozjs_sym_primary_expression, 693),
     (mozjs_sym_yield_expression, 743), (mozjs_sym_object, 793),
     (mozjs_sym_object_pattern, 1811), (mozjs_sym_array, 793),
     (mozjs_sym_array_pattern, 1811), (mozjs_sym_jsx_element, 743),
     (mozjs_sym_jsx_opening_element, 1158), (mozjs_sym_jsx_self_closing_element, 743),
     (mozjs_sym_class, 793), (mozjs_sym_function_expression, 793),
     (mozjs_sym_generator_function, 793), (mozjs_sym_arrow_function, 793),
     (mozjs_sym_call_expression, 793), (mozjs_sym_new_expression, 692),
     (mozjs_sym_await_expression, 743), (mozjs_sym_member_expression, 559),
     (mozjs_sym_subscript_expression, 559), (mozjs_sym_assignment_expression, 743),
     (mozjs_sym__augmented_assignment_lhs, 1143), (mozjs_sym_augmented_assignment_expression,
       743),
     (mozjs_sym__destructuring_pattern, 1811), (mozjs_sym_ternary_expression, 743),
     (mozjs_sym_binary_expression, 743), (mozjs_sym_unary_expression, 743),
     (mozjs_sym_update_expression, 743), (mozjs_sym_string, 793),
     (mozjs_sym_template_string, 793), (mozjs_sym_regex, 793),
     (mozjs_sym_meta_property, 793), (mozjs_sym_decorator, 1112),
     (mozjs_sym_formal_parameters, 1812), (mozjs_aux_sym_export_statement_repeat1, 1331),
     (mozjs_sym_identifier, 551), (mozjs_anon_sym_export, 553),
     (mozjs_anon_sym_LBRACE, 309), (mozjs_anon_sym_import, 315),
     (mozjs_anon_sym_let, 553), (mozjs_anon_sym_await, 555),
     (mozjs_anon_sym_LPAREN, 37), (mozjs_anon_sym_yield, 557),
     (mozjs_anon_sym_LBRACK, 59), (mozjs_anon_sym_LT, 61),
     (mozjs_anon_sym_DQUOTE, 63), (mozjs_anon_sym_SQUOTE, 65),
     (mozjs_anon_sym_class, 336), (mozjs_anon_sym_async, 561),
     (mozjs_anon_sym_function, 340), (mozjs_anon_sym_new, 565),
     (mozjs_anon_sym_PLUS, 573), (mozjs_anon_sym_DASH, 573),
     (mozjs_anon_sym_SLASH, 677), (mozjs_anon_sym_BANG, 575),
     (mozjs_anon_sym_TILDE, 575), (mozjs_anon_sym_typeof, 573),
     (mozjs_anon_sym_void, 573), (mozjs_anon_sym_delete, 573),
     (mozjs_anon_sym_PLUS_PLUS, 679), (mozjs_anon_sym_DASH_DASH, 679),
     (mozjs_sym_comment, 5), (mozjs_anon_sym_BQUOTE, 83),
     (mozjs_sym_number, 85), (mozjs_sym_private_property_identifier, 580),
     (mozjs_sym_this, 89), (mozjs_sym_super, 89),
     (mozjs_sym_true, 89), (mozjs_sym_false, 89),
     (mozjs_sym_null, 89), (mozjs_sym_undefined, 582),
     (mozjs_anon_sym_AT, 93), (mozjs_anon_sym_static, 553),
     (mozjs_anon_sym_get, 553), (mozjs_anon_sym_set, 553),
     (mozjs_sym_html_comment, 5)]"

definition mozjs_parse_row_302 :: "(TSSymbol \<times> nat) list" where
  "mozjs_parse_row_302 =
    [(mozjs_sym_import, 1333), (mozjs_sym_parenthesized_expression, 559),
     (mozjs_sym_expression, 714), (mozjs_sym_primary_expression, 693),
     (mozjs_sym_yield_expression, 743), (mozjs_sym_object, 793),
     (mozjs_sym_object_pattern, 1811), (mozjs_sym_array, 793),
     (mozjs_sym_array_pattern, 1811), (mozjs_sym_jsx_element, 743),
     (mozjs_sym_jsx_opening_element, 1158), (mozjs_sym_jsx_self_closing_element, 743),
     (mozjs_sym_class, 793), (mozjs_sym_function_expression, 793),
     (mozjs_sym_generator_function, 793), (mozjs_sym_arrow_function, 793),
     (mozjs_sym_call_expression, 793), (mozjs_sym_new_expression, 692),
     (mozjs_sym_await_expression, 743), (mozjs_sym_member_expression, 559),
     (mozjs_sym_subscript_expression, 559), (mozjs_sym_assignment_expression, 743),
     (mozjs_sym__augmented_assignment_lhs, 1143), (mozjs_sym_augmented_assignment_expression,
       743),
     (mozjs_sym__destructuring_pattern, 1811), (mozjs_sym_ternary_expression, 743),
     (mozjs_sym_binary_expression, 743), (mozjs_sym_unary_expression, 743),
     (mozjs_sym_update_expression, 743), (mozjs_sym_string, 793),
     (mozjs_sym_template_string, 793), (mozjs_sym_regex, 793),
     (mozjs_sym_meta_property, 793), (mozjs_sym_decorator, 1112),
     (mozjs_sym_formal_parameters, 1812), (mozjs_aux_sym_export_statement_repeat1, 1331),
     (mozjs_sym_identifier, 551), (mozjs_anon_sym_export, 553),
     (mozjs_anon_sym_LBRACE, 309), (mozjs_anon_sym_import, 315),
     (mozjs_anon_sym_let, 553), (mozjs_anon_sym_await, 555),
     (mozjs_anon_sym_LPAREN, 37), (mozjs_anon_sym_yield, 557),
     (mozjs_anon_sym_LBRACK, 59), (mozjs_anon_sym_LT, 61),
     (mozjs_anon_sym_DQUOTE, 63), (mozjs_anon_sym_SQUOTE, 65),
     (mozjs_anon_sym_class, 336), (mozjs_anon_sym_async, 561),
     (mozjs_anon_sym_function, 340), (mozjs_anon_sym_new, 565),
     (mozjs_anon_sym_PLUS, 573), (mozjs_anon_sym_DASH, 573),
     (mozjs_anon_sym_SLASH, 677), (mozjs_anon_sym_BANG, 575),
     (mozjs_anon_sym_TILDE, 575), (mozjs_anon_sym_typeof, 573),
     (mozjs_anon_sym_void, 573), (mozjs_anon_sym_delete, 573),
     (mozjs_anon_sym_PLUS_PLUS, 679), (mozjs_anon_sym_DASH_DASH, 679),
     (mozjs_sym_comment, 5), (mozjs_anon_sym_BQUOTE, 83),
     (mozjs_sym_number, 85), (mozjs_sym_private_property_identifier, 580),
     (mozjs_sym_this, 89), (mozjs_sym_super, 89),
     (mozjs_sym_true, 89), (mozjs_sym_false, 89),
     (mozjs_sym_null, 89), (mozjs_sym_undefined, 582),
     (mozjs_anon_sym_AT, 93), (mozjs_anon_sym_static, 553),
     (mozjs_anon_sym_get, 553), (mozjs_anon_sym_set, 553),
     (mozjs_sym_html_comment, 5)]"

definition mozjs_parse_row_303 :: "(TSSymbol \<times> nat) list" where
  "mozjs_parse_row_303 =
    [(mozjs_sym_import, 1333), (mozjs_sym_parenthesized_expression, 559),
     (mozjs_sym_expression, 715), (mozjs_sym_primary_expression, 693),
     (mozjs_sym_yield_expression, 743), (mozjs_sym_object, 793),
     (mozjs_sym_object_pattern, 1811), (mozjs_sym_array, 793),
     (mozjs_sym_array_pattern, 1811), (mozjs_sym_jsx_element, 743),
     (mozjs_sym_jsx_opening_element, 1158), (mozjs_sym_jsx_self_closing_element, 743),
     (mozjs_sym_class, 793), (mozjs_sym_function_expression, 793),
     (mozjs_sym_generator_function, 793), (mozjs_sym_arrow_function, 793),
     (mozjs_sym_call_expression, 793), (mozjs_sym_new_expression, 692),
     (mozjs_sym_await_expression, 743), (mozjs_sym_member_expression, 559),
     (mozjs_sym_subscript_expression, 559), (mozjs_sym_assignment_expression, 743),
     (mozjs_sym__augmented_assignment_lhs, 1143), (mozjs_sym_augmented_assignment_expression,
       743),
     (mozjs_sym__destructuring_pattern, 1811), (mozjs_sym_ternary_expression, 743),
     (mozjs_sym_binary_expression, 743), (mozjs_sym_unary_expression, 743),
     (mozjs_sym_update_expression, 743), (mozjs_sym_string, 793),
     (mozjs_sym_template_string, 793), (mozjs_sym_regex, 793),
     (mozjs_sym_meta_property, 793), (mozjs_sym_decorator, 1112),
     (mozjs_sym_formal_parameters, 1812), (mozjs_aux_sym_export_statement_repeat1, 1331),
     (mozjs_sym_identifier, 551), (mozjs_anon_sym_export, 553),
     (mozjs_anon_sym_LBRACE, 309), (mozjs_anon_sym_import, 315),
     (mozjs_anon_sym_let, 553), (mozjs_anon_sym_await, 555),
     (mozjs_anon_sym_LPAREN, 37), (mozjs_anon_sym_yield, 557),
     (mozjs_anon_sym_LBRACK, 59), (mozjs_anon_sym_LT, 61),
     (mozjs_anon_sym_DQUOTE, 63), (mozjs_anon_sym_SQUOTE, 65),
     (mozjs_anon_sym_class, 336), (mozjs_anon_sym_async, 561),
     (mozjs_anon_sym_function, 340), (mozjs_anon_sym_new, 565),
     (mozjs_anon_sym_PLUS, 573), (mozjs_anon_sym_DASH, 573),
     (mozjs_anon_sym_SLASH, 677), (mozjs_anon_sym_BANG, 575),
     (mozjs_anon_sym_TILDE, 575), (mozjs_anon_sym_typeof, 573),
     (mozjs_anon_sym_void, 573), (mozjs_anon_sym_delete, 573),
     (mozjs_anon_sym_PLUS_PLUS, 679), (mozjs_anon_sym_DASH_DASH, 679),
     (mozjs_sym_comment, 5), (mozjs_anon_sym_BQUOTE, 83),
     (mozjs_sym_number, 85), (mozjs_sym_private_property_identifier, 580),
     (mozjs_sym_this, 89), (mozjs_sym_super, 89),
     (mozjs_sym_true, 89), (mozjs_sym_false, 89),
     (mozjs_sym_null, 89), (mozjs_sym_undefined, 582),
     (mozjs_anon_sym_AT, 93), (mozjs_anon_sym_static, 553),
     (mozjs_anon_sym_get, 553), (mozjs_anon_sym_set, 553),
     (mozjs_sym_html_comment, 5)]"

definition mozjs_parse_row_304 :: "(TSSymbol \<times> nat) list" where
  "mozjs_parse_row_304 =
    [(mozjs_sym_import, 1333), (mozjs_sym_parenthesized_expression, 559),
     (mozjs_sym_expression, 716), (mozjs_sym_primary_expression, 693),
     (mozjs_sym_yield_expression, 743), (mozjs_sym_object, 793),
     (mozjs_sym_object_pattern, 1811), (mozjs_sym_array, 793),
     (mozjs_sym_array_pattern, 1811), (mozjs_sym_jsx_element, 743),
     (mozjs_sym_jsx_opening_element, 1158), (mozjs_sym_jsx_self_closing_element, 743),
     (mozjs_sym_class, 793), (mozjs_sym_function_expression, 793),
     (mozjs_sym_generator_function, 793), (mozjs_sym_arrow_function, 793),
     (mozjs_sym_call_expression, 793), (mozjs_sym_new_expression, 692),
     (mozjs_sym_await_expression, 743), (mozjs_sym_member_expression, 559),
     (mozjs_sym_subscript_expression, 559), (mozjs_sym_assignment_expression, 743),
     (mozjs_sym__augmented_assignment_lhs, 1143), (mozjs_sym_augmented_assignment_expression,
       743),
     (mozjs_sym__destructuring_pattern, 1811), (mozjs_sym_ternary_expression, 743),
     (mozjs_sym_binary_expression, 743), (mozjs_sym_unary_expression, 743),
     (mozjs_sym_update_expression, 743), (mozjs_sym_string, 793),
     (mozjs_sym_template_string, 793), (mozjs_sym_regex, 793),
     (mozjs_sym_meta_property, 793), (mozjs_sym_decorator, 1112),
     (mozjs_sym_formal_parameters, 1812), (mozjs_aux_sym_export_statement_repeat1, 1331),
     (mozjs_sym_identifier, 551), (mozjs_anon_sym_export, 553),
     (mozjs_anon_sym_LBRACE, 309), (mozjs_anon_sym_import, 315),
     (mozjs_anon_sym_let, 553), (mozjs_anon_sym_await, 555),
     (mozjs_anon_sym_LPAREN, 37), (mozjs_anon_sym_yield, 557),
     (mozjs_anon_sym_LBRACK, 59), (mozjs_anon_sym_LT, 61),
     (mozjs_anon_sym_DQUOTE, 63), (mozjs_anon_sym_SQUOTE, 65),
     (mozjs_anon_sym_class, 336), (mozjs_anon_sym_async, 561),
     (mozjs_anon_sym_function, 340), (mozjs_anon_sym_new, 565),
     (mozjs_anon_sym_PLUS, 573), (mozjs_anon_sym_DASH, 573),
     (mozjs_anon_sym_SLASH, 677), (mozjs_anon_sym_BANG, 575),
     (mozjs_anon_sym_TILDE, 575), (mozjs_anon_sym_typeof, 573),
     (mozjs_anon_sym_void, 573), (mozjs_anon_sym_delete, 573),
     (mozjs_anon_sym_PLUS_PLUS, 679), (mozjs_anon_sym_DASH_DASH, 679),
     (mozjs_sym_comment, 5), (mozjs_anon_sym_BQUOTE, 83),
     (mozjs_sym_number, 85), (mozjs_sym_private_property_identifier, 580),
     (mozjs_sym_this, 89), (mozjs_sym_super, 89),
     (mozjs_sym_true, 89), (mozjs_sym_false, 89),
     (mozjs_sym_null, 89), (mozjs_sym_undefined, 582),
     (mozjs_anon_sym_AT, 93), (mozjs_anon_sym_static, 553),
     (mozjs_anon_sym_get, 553), (mozjs_anon_sym_set, 553),
     (mozjs_sym_html_comment, 5)]"

definition mozjs_parse_row_305 :: "(TSSymbol \<times> nat) list" where
  "mozjs_parse_row_305 =
    [(mozjs_sym_import, 1333), (mozjs_sym_parenthesized_expression, 559),
     (mozjs_sym_expression, 717), (mozjs_sym_primary_expression, 693),
     (mozjs_sym_yield_expression, 743), (mozjs_sym_object, 793),
     (mozjs_sym_object_pattern, 1811), (mozjs_sym_array, 793),
     (mozjs_sym_array_pattern, 1811), (mozjs_sym_jsx_element, 743),
     (mozjs_sym_jsx_opening_element, 1158), (mozjs_sym_jsx_self_closing_element, 743),
     (mozjs_sym_class, 793), (mozjs_sym_function_expression, 793),
     (mozjs_sym_generator_function, 793), (mozjs_sym_arrow_function, 793),
     (mozjs_sym_call_expression, 793), (mozjs_sym_new_expression, 692),
     (mozjs_sym_await_expression, 743), (mozjs_sym_member_expression, 559),
     (mozjs_sym_subscript_expression, 559), (mozjs_sym_assignment_expression, 743),
     (mozjs_sym__augmented_assignment_lhs, 1143), (mozjs_sym_augmented_assignment_expression,
       743),
     (mozjs_sym__destructuring_pattern, 1811), (mozjs_sym_ternary_expression, 743),
     (mozjs_sym_binary_expression, 743), (mozjs_sym_unary_expression, 743),
     (mozjs_sym_update_expression, 743), (mozjs_sym_string, 793),
     (mozjs_sym_template_string, 793), (mozjs_sym_regex, 793),
     (mozjs_sym_meta_property, 793), (mozjs_sym_decorator, 1112),
     (mozjs_sym_formal_parameters, 1812), (mozjs_aux_sym_export_statement_repeat1, 1331),
     (mozjs_sym_identifier, 551), (mozjs_anon_sym_export, 553),
     (mozjs_anon_sym_LBRACE, 309), (mozjs_anon_sym_import, 315),
     (mozjs_anon_sym_let, 553), (mozjs_anon_sym_await, 555),
     (mozjs_anon_sym_LPAREN, 37), (mozjs_anon_sym_yield, 557),
     (mozjs_anon_sym_LBRACK, 59), (mozjs_anon_sym_LT, 61),
     (mozjs_anon_sym_DQUOTE, 63), (mozjs_anon_sym_SQUOTE, 65),
     (mozjs_anon_sym_class, 336), (mozjs_anon_sym_async, 561),
     (mozjs_anon_sym_function, 340), (mozjs_anon_sym_new, 565),
     (mozjs_anon_sym_PLUS, 573), (mozjs_anon_sym_DASH, 573),
     (mozjs_anon_sym_SLASH, 677), (mozjs_anon_sym_BANG, 575),
     (mozjs_anon_sym_TILDE, 575), (mozjs_anon_sym_typeof, 573),
     (mozjs_anon_sym_void, 573), (mozjs_anon_sym_delete, 573),
     (mozjs_anon_sym_PLUS_PLUS, 679), (mozjs_anon_sym_DASH_DASH, 679),
     (mozjs_sym_comment, 5), (mozjs_anon_sym_BQUOTE, 83),
     (mozjs_sym_number, 85), (mozjs_sym_private_property_identifier, 580),
     (mozjs_sym_this, 89), (mozjs_sym_super, 89),
     (mozjs_sym_true, 89), (mozjs_sym_false, 89),
     (mozjs_sym_null, 89), (mozjs_sym_undefined, 582),
     (mozjs_anon_sym_AT, 93), (mozjs_anon_sym_static, 553),
     (mozjs_anon_sym_get, 553), (mozjs_anon_sym_set, 553),
     (mozjs_sym_html_comment, 5)]"

definition mozjs_parse_row_306 :: "(TSSymbol \<times> nat) list" where
  "mozjs_parse_row_306 =
    [(mozjs_sym_import, 1333), (mozjs_sym_parenthesized_expression, 559),
     (mozjs_sym_expression, 718), (mozjs_sym_primary_expression, 693),
     (mozjs_sym_yield_expression, 743), (mozjs_sym_object, 793),
     (mozjs_sym_object_pattern, 1811), (mozjs_sym_array, 793),
     (mozjs_sym_array_pattern, 1811), (mozjs_sym_jsx_element, 743),
     (mozjs_sym_jsx_opening_element, 1158), (mozjs_sym_jsx_self_closing_element, 743),
     (mozjs_sym_class, 793), (mozjs_sym_function_expression, 793),
     (mozjs_sym_generator_function, 793), (mozjs_sym_arrow_function, 793),
     (mozjs_sym_call_expression, 793), (mozjs_sym_new_expression, 692),
     (mozjs_sym_await_expression, 743), (mozjs_sym_member_expression, 559),
     (mozjs_sym_subscript_expression, 559), (mozjs_sym_assignment_expression, 743),
     (mozjs_sym__augmented_assignment_lhs, 1143), (mozjs_sym_augmented_assignment_expression,
       743),
     (mozjs_sym__destructuring_pattern, 1811), (mozjs_sym_ternary_expression, 743),
     (mozjs_sym_binary_expression, 743), (mozjs_sym_unary_expression, 743),
     (mozjs_sym_update_expression, 743), (mozjs_sym_string, 793),
     (mozjs_sym_template_string, 793), (mozjs_sym_regex, 793),
     (mozjs_sym_meta_property, 793), (mozjs_sym_decorator, 1112),
     (mozjs_sym_formal_parameters, 1812), (mozjs_aux_sym_export_statement_repeat1, 1331),
     (mozjs_sym_identifier, 551), (mozjs_anon_sym_export, 553),
     (mozjs_anon_sym_LBRACE, 309), (mozjs_anon_sym_import, 315),
     (mozjs_anon_sym_let, 553), (mozjs_anon_sym_await, 555),
     (mozjs_anon_sym_LPAREN, 37), (mozjs_anon_sym_yield, 557),
     (mozjs_anon_sym_LBRACK, 59), (mozjs_anon_sym_LT, 61),
     (mozjs_anon_sym_DQUOTE, 63), (mozjs_anon_sym_SQUOTE, 65),
     (mozjs_anon_sym_class, 336), (mozjs_anon_sym_async, 561),
     (mozjs_anon_sym_function, 340), (mozjs_anon_sym_new, 565),
     (mozjs_anon_sym_PLUS, 573), (mozjs_anon_sym_DASH, 573),
     (mozjs_anon_sym_SLASH, 677), (mozjs_anon_sym_BANG, 575),
     (mozjs_anon_sym_TILDE, 575), (mozjs_anon_sym_typeof, 573),
     (mozjs_anon_sym_void, 573), (mozjs_anon_sym_delete, 573),
     (mozjs_anon_sym_PLUS_PLUS, 679), (mozjs_anon_sym_DASH_DASH, 679),
     (mozjs_sym_comment, 5), (mozjs_anon_sym_BQUOTE, 83),
     (mozjs_sym_number, 85), (mozjs_sym_private_property_identifier, 580),
     (mozjs_sym_this, 89), (mozjs_sym_super, 89),
     (mozjs_sym_true, 89), (mozjs_sym_false, 89),
     (mozjs_sym_null, 89), (mozjs_sym_undefined, 582),
     (mozjs_anon_sym_AT, 93), (mozjs_anon_sym_static, 553),
     (mozjs_anon_sym_get, 553), (mozjs_anon_sym_set, 553),
     (mozjs_sym_html_comment, 5)]"

definition mozjs_parse_row_307 :: "(TSSymbol \<times> nat) list" where
  "mozjs_parse_row_307 =
    [(mozjs_sym_import, 1333), (mozjs_sym_parenthesized_expression, 559),
     (mozjs_sym_expression, 719), (mozjs_sym_primary_expression, 693),
     (mozjs_sym_yield_expression, 743), (mozjs_sym_object, 793),
     (mozjs_sym_object_pattern, 1811), (mozjs_sym_array, 793),
     (mozjs_sym_array_pattern, 1811), (mozjs_sym_jsx_element, 743),
     (mozjs_sym_jsx_opening_element, 1158), (mozjs_sym_jsx_self_closing_element, 743),
     (mozjs_sym_class, 793), (mozjs_sym_function_expression, 793),
     (mozjs_sym_generator_function, 793), (mozjs_sym_arrow_function, 793),
     (mozjs_sym_call_expression, 793), (mozjs_sym_new_expression, 692),
     (mozjs_sym_await_expression, 743), (mozjs_sym_member_expression, 559),
     (mozjs_sym_subscript_expression, 559), (mozjs_sym_assignment_expression, 743),
     (mozjs_sym__augmented_assignment_lhs, 1143), (mozjs_sym_augmented_assignment_expression,
       743),
     (mozjs_sym__destructuring_pattern, 1811), (mozjs_sym_ternary_expression, 743),
     (mozjs_sym_binary_expression, 743), (mozjs_sym_unary_expression, 743),
     (mozjs_sym_update_expression, 743), (mozjs_sym_string, 793),
     (mozjs_sym_template_string, 793), (mozjs_sym_regex, 793),
     (mozjs_sym_meta_property, 793), (mozjs_sym_decorator, 1112),
     (mozjs_sym_formal_parameters, 1812), (mozjs_aux_sym_export_statement_repeat1, 1331),
     (mozjs_sym_identifier, 551), (mozjs_anon_sym_export, 553),
     (mozjs_anon_sym_LBRACE, 309), (mozjs_anon_sym_import, 315),
     (mozjs_anon_sym_let, 553), (mozjs_anon_sym_await, 555),
     (mozjs_anon_sym_LPAREN, 37), (mozjs_anon_sym_yield, 557),
     (mozjs_anon_sym_LBRACK, 59), (mozjs_anon_sym_LT, 61),
     (mozjs_anon_sym_DQUOTE, 63), (mozjs_anon_sym_SQUOTE, 65),
     (mozjs_anon_sym_class, 336), (mozjs_anon_sym_async, 561),
     (mozjs_anon_sym_function, 340), (mozjs_anon_sym_new, 565),
     (mozjs_anon_sym_PLUS, 573), (mozjs_anon_sym_DASH, 573),
     (mozjs_anon_sym_SLASH, 677), (mozjs_anon_sym_BANG, 575),
     (mozjs_anon_sym_TILDE, 575), (mozjs_anon_sym_typeof, 573),
     (mozjs_anon_sym_void, 573), (mozjs_anon_sym_delete, 573),
     (mozjs_anon_sym_PLUS_PLUS, 679), (mozjs_anon_sym_DASH_DASH, 679),
     (mozjs_sym_comment, 5), (mozjs_anon_sym_BQUOTE, 83),
     (mozjs_sym_number, 85), (mozjs_sym_private_property_identifier, 580),
     (mozjs_sym_this, 89), (mozjs_sym_super, 89),
     (mozjs_sym_true, 89), (mozjs_sym_false, 89),
     (mozjs_sym_null, 89), (mozjs_sym_undefined, 582),
     (mozjs_anon_sym_AT, 93), (mozjs_anon_sym_static, 553),
     (mozjs_anon_sym_get, 553), (mozjs_anon_sym_set, 553),
     (mozjs_sym_html_comment, 5)]"

definition mozjs_parse_row_308 :: "(TSSymbol \<times> nat) list" where
  "mozjs_parse_row_308 =
    [(mozjs_sym_import, 1333), (mozjs_sym_parenthesized_expression, 559),
     (mozjs_sym_expression, 720), (mozjs_sym_primary_expression, 693),
     (mozjs_sym_yield_expression, 743), (mozjs_sym_object, 793),
     (mozjs_sym_object_pattern, 1811), (mozjs_sym_array, 793),
     (mozjs_sym_array_pattern, 1811), (mozjs_sym_jsx_element, 743),
     (mozjs_sym_jsx_opening_element, 1158), (mozjs_sym_jsx_self_closing_element, 743),
     (mozjs_sym_class, 793), (mozjs_sym_function_expression, 793),
     (mozjs_sym_generator_function, 793), (mozjs_sym_arrow_function, 793),
     (mozjs_sym_call_expression, 793), (mozjs_sym_new_expression, 692),
     (mozjs_sym_await_expression, 743), (mozjs_sym_member_expression, 559),
     (mozjs_sym_subscript_expression, 559), (mozjs_sym_assignment_expression, 743),
     (mozjs_sym__augmented_assignment_lhs, 1143), (mozjs_sym_augmented_assignment_expression,
       743),
     (mozjs_sym__destructuring_pattern, 1811), (mozjs_sym_ternary_expression, 743),
     (mozjs_sym_binary_expression, 743), (mozjs_sym_unary_expression, 743),
     (mozjs_sym_update_expression, 743), (mozjs_sym_string, 793),
     (mozjs_sym_template_string, 793), (mozjs_sym_regex, 793),
     (mozjs_sym_meta_property, 793), (mozjs_sym_decorator, 1112),
     (mozjs_sym_formal_parameters, 1812), (mozjs_aux_sym_export_statement_repeat1, 1331),
     (mozjs_sym_identifier, 551), (mozjs_anon_sym_export, 553),
     (mozjs_anon_sym_LBRACE, 309), (mozjs_anon_sym_import, 315),
     (mozjs_anon_sym_let, 553), (mozjs_anon_sym_await, 555),
     (mozjs_anon_sym_LPAREN, 37), (mozjs_anon_sym_yield, 557),
     (mozjs_anon_sym_LBRACK, 59), (mozjs_anon_sym_LT, 61),
     (mozjs_anon_sym_DQUOTE, 63), (mozjs_anon_sym_SQUOTE, 65),
     (mozjs_anon_sym_class, 336), (mozjs_anon_sym_async, 561),
     (mozjs_anon_sym_function, 340), (mozjs_anon_sym_new, 565),
     (mozjs_anon_sym_PLUS, 573), (mozjs_anon_sym_DASH, 573),
     (mozjs_anon_sym_SLASH, 677), (mozjs_anon_sym_BANG, 575),
     (mozjs_anon_sym_TILDE, 575), (mozjs_anon_sym_typeof, 573),
     (mozjs_anon_sym_void, 573), (mozjs_anon_sym_delete, 573),
     (mozjs_anon_sym_PLUS_PLUS, 679), (mozjs_anon_sym_DASH_DASH, 679),
     (mozjs_sym_comment, 5), (mozjs_anon_sym_BQUOTE, 83),
     (mozjs_sym_number, 85), (mozjs_sym_private_property_identifier, 580),
     (mozjs_sym_this, 89), (mozjs_sym_super, 89),
     (mozjs_sym_true, 89), (mozjs_sym_false, 89),
     (mozjs_sym_null, 89), (mozjs_sym_undefined, 582),
     (mozjs_anon_sym_AT, 93), (mozjs_anon_sym_static, 553),
     (mozjs_anon_sym_get, 553), (mozjs_anon_sym_set, 553),
     (mozjs_sym_html_comment, 5)]"

definition mozjs_parse_row_309 :: "(TSSymbol \<times> nat) list" where
  "mozjs_parse_row_309 =
    [(mozjs_sym_import, 1333), (mozjs_sym_parenthesized_expression, 559),
     (mozjs_sym_expression, 721), (mozjs_sym_primary_expression, 693),
     (mozjs_sym_yield_expression, 743), (mozjs_sym_object, 793),
     (mozjs_sym_object_pattern, 1811), (mozjs_sym_array, 793),
     (mozjs_sym_array_pattern, 1811), (mozjs_sym_jsx_element, 743),
     (mozjs_sym_jsx_opening_element, 1158), (mozjs_sym_jsx_self_closing_element, 743),
     (mozjs_sym_class, 793), (mozjs_sym_function_expression, 793),
     (mozjs_sym_generator_function, 793), (mozjs_sym_arrow_function, 793),
     (mozjs_sym_call_expression, 793), (mozjs_sym_new_expression, 692),
     (mozjs_sym_await_expression, 743), (mozjs_sym_member_expression, 559),
     (mozjs_sym_subscript_expression, 559), (mozjs_sym_assignment_expression, 743),
     (mozjs_sym__augmented_assignment_lhs, 1143), (mozjs_sym_augmented_assignment_expression,
       743),
     (mozjs_sym__destructuring_pattern, 1811), (mozjs_sym_ternary_expression, 743),
     (mozjs_sym_binary_expression, 743), (mozjs_sym_unary_expression, 743),
     (mozjs_sym_update_expression, 743), (mozjs_sym_string, 793),
     (mozjs_sym_template_string, 793), (mozjs_sym_regex, 793),
     (mozjs_sym_meta_property, 793), (mozjs_sym_decorator, 1112),
     (mozjs_sym_formal_parameters, 1812), (mozjs_aux_sym_export_statement_repeat1, 1331),
     (mozjs_sym_identifier, 551), (mozjs_anon_sym_export, 553),
     (mozjs_anon_sym_LBRACE, 309), (mozjs_anon_sym_import, 315),
     (mozjs_anon_sym_let, 553), (mozjs_anon_sym_await, 555),
     (mozjs_anon_sym_LPAREN, 37), (mozjs_anon_sym_yield, 557),
     (mozjs_anon_sym_LBRACK, 59), (mozjs_anon_sym_LT, 61),
     (mozjs_anon_sym_DQUOTE, 63), (mozjs_anon_sym_SQUOTE, 65),
     (mozjs_anon_sym_class, 336), (mozjs_anon_sym_async, 561),
     (mozjs_anon_sym_function, 340), (mozjs_anon_sym_new, 565),
     (mozjs_anon_sym_PLUS, 573), (mozjs_anon_sym_DASH, 573),
     (mozjs_anon_sym_SLASH, 677), (mozjs_anon_sym_BANG, 575),
     (mozjs_anon_sym_TILDE, 575), (mozjs_anon_sym_typeof, 573),
     (mozjs_anon_sym_void, 573), (mozjs_anon_sym_delete, 573),
     (mozjs_anon_sym_PLUS_PLUS, 679), (mozjs_anon_sym_DASH_DASH, 679),
     (mozjs_sym_comment, 5), (mozjs_anon_sym_BQUOTE, 83),
     (mozjs_sym_number, 85), (mozjs_sym_private_property_identifier, 580),
     (mozjs_sym_this, 89), (mozjs_sym_super, 89),
     (mozjs_sym_true, 89), (mozjs_sym_false, 89),
     (mozjs_sym_null, 89), (mozjs_sym_undefined, 582),
     (mozjs_anon_sym_AT, 93), (mozjs_anon_sym_static, 553),
     (mozjs_anon_sym_get, 553), (mozjs_anon_sym_set, 553),
     (mozjs_sym_html_comment, 5)]"

definition mozjs_parse_row_310 :: "(TSSymbol \<times> nat) list" where
  "mozjs_parse_row_310 =
    [(mozjs_sym_import, 1333), (mozjs_sym_parenthesized_expression, 559),
     (mozjs_sym_expression, 722), (mozjs_sym_primary_expression, 693),
     (mozjs_sym_yield_expression, 743), (mozjs_sym_object, 793),
     (mozjs_sym_object_pattern, 1811), (mozjs_sym_array, 793),
     (mozjs_sym_array_pattern, 1811), (mozjs_sym_jsx_element, 743),
     (mozjs_sym_jsx_opening_element, 1158), (mozjs_sym_jsx_self_closing_element, 743),
     (mozjs_sym_class, 793), (mozjs_sym_function_expression, 793),
     (mozjs_sym_generator_function, 793), (mozjs_sym_arrow_function, 793),
     (mozjs_sym_call_expression, 793), (mozjs_sym_new_expression, 692),
     (mozjs_sym_await_expression, 743), (mozjs_sym_member_expression, 559),
     (mozjs_sym_subscript_expression, 559), (mozjs_sym_assignment_expression, 743),
     (mozjs_sym__augmented_assignment_lhs, 1143), (mozjs_sym_augmented_assignment_expression,
       743),
     (mozjs_sym__destructuring_pattern, 1811), (mozjs_sym_ternary_expression, 743),
     (mozjs_sym_binary_expression, 743), (mozjs_sym_unary_expression, 743),
     (mozjs_sym_update_expression, 743), (mozjs_sym_string, 793),
     (mozjs_sym_template_string, 793), (mozjs_sym_regex, 793),
     (mozjs_sym_meta_property, 793), (mozjs_sym_decorator, 1112),
     (mozjs_sym_formal_parameters, 1812), (mozjs_aux_sym_export_statement_repeat1, 1331),
     (mozjs_sym_identifier, 551), (mozjs_anon_sym_export, 553),
     (mozjs_anon_sym_LBRACE, 309), (mozjs_anon_sym_import, 315),
     (mozjs_anon_sym_let, 553), (mozjs_anon_sym_await, 555),
     (mozjs_anon_sym_LPAREN, 37), (mozjs_anon_sym_yield, 557),
     (mozjs_anon_sym_LBRACK, 59), (mozjs_anon_sym_LT, 61),
     (mozjs_anon_sym_DQUOTE, 63), (mozjs_anon_sym_SQUOTE, 65),
     (mozjs_anon_sym_class, 336), (mozjs_anon_sym_async, 561),
     (mozjs_anon_sym_function, 340), (mozjs_anon_sym_new, 565),
     (mozjs_anon_sym_PLUS, 573), (mozjs_anon_sym_DASH, 573),
     (mozjs_anon_sym_SLASH, 677), (mozjs_anon_sym_BANG, 575),
     (mozjs_anon_sym_TILDE, 575), (mozjs_anon_sym_typeof, 573),
     (mozjs_anon_sym_void, 573), (mozjs_anon_sym_delete, 573),
     (mozjs_anon_sym_PLUS_PLUS, 679), (mozjs_anon_sym_DASH_DASH, 679),
     (mozjs_sym_comment, 5), (mozjs_anon_sym_BQUOTE, 83),
     (mozjs_sym_number, 85), (mozjs_sym_private_property_identifier, 580),
     (mozjs_sym_this, 89), (mozjs_sym_super, 89),
     (mozjs_sym_true, 89), (mozjs_sym_false, 89),
     (mozjs_sym_null, 89), (mozjs_sym_undefined, 582),
     (mozjs_anon_sym_AT, 93), (mozjs_anon_sym_static, 553),
     (mozjs_anon_sym_get, 553), (mozjs_anon_sym_set, 553),
     (mozjs_sym_html_comment, 5)]"

definition mozjs_parse_row_311 :: "(TSSymbol \<times> nat) list" where
  "mozjs_parse_row_311 =
    [(mozjs_sym_import, 1340), (mozjs_sym_parenthesized_expression, 525),
     (mozjs_sym_expression, 977), (mozjs_sym_primary_expression, 584),
     (mozjs_sym_yield_expression, 638), (mozjs_sym_object, 645),
     (mozjs_sym_object_pattern, 1827), (mozjs_sym_array, 645),
     (mozjs_sym_array_pattern, 1827), (mozjs_sym_jsx_element, 638),
     (mozjs_sym_jsx_opening_element, 1152), (mozjs_sym_jsx_self_closing_element, 638),
     (mozjs_sym_class, 645), (mozjs_sym_function_expression, 645),
     (mozjs_sym_generator_function, 645), (mozjs_sym_arrow_function, 645),
     (mozjs_sym_call_expression, 645), (mozjs_sym_new_expression, 587),
     (mozjs_sym_await_expression, 638), (mozjs_sym_member_expression, 525),
     (mozjs_sym_subscript_expression, 525), (mozjs_sym_assignment_expression, 638),
     (mozjs_sym__augmented_assignment_lhs, 1145), (mozjs_sym_augmented_assignment_expression,
       638),
     (mozjs_sym__destructuring_pattern, 1827), (mozjs_sym_ternary_expression, 638),
     (mozjs_sym_binary_expression, 638), (mozjs_sym_unary_expression, 638),
     (mozjs_sym_update_expression, 638), (mozjs_sym_string, 645),
     (mozjs_sym_template_string, 645), (mozjs_sym_regex, 645),
     (mozjs_sym_meta_property, 645), (mozjs_sym_decorator, 1112),
     (mozjs_sym_formal_parameters, 1777), (mozjs_aux_sym_export_statement_repeat1, 1395),
     (mozjs_sym_identifier, 384), (mozjs_anon_sym_export, 386),
     (mozjs_anon_sym_LBRACE, 388), (mozjs_anon_sym_import, 390),
     (mozjs_anon_sym_let, 386), (mozjs_anon_sym_await, 392),
     (mozjs_anon_sym_LPAREN, 657), (mozjs_anon_sym_yield, 397),
     (mozjs_anon_sym_LBRACK, 661), (mozjs_anon_sym_LT, 827),
     (mozjs_anon_sym_DQUOTE, 407), (mozjs_anon_sym_SQUOTE, 409),
     (mozjs_anon_sym_class, 411), (mozjs_anon_sym_async, 413),
     (mozjs_anon_sym_function, 415), (mozjs_anon_sym_new, 419),
     (mozjs_anon_sym_PLUS, 427), (mozjs_anon_sym_DASH, 427),
     (mozjs_anon_sym_SLASH, 665), (mozjs_anon_sym_BANG, 429),
     (mozjs_anon_sym_TILDE, 429), (mozjs_anon_sym_typeof, 427),
     (mozjs_anon_sym_void, 427), (mozjs_anon_sym_delete, 427),
     (mozjs_anon_sym_PLUS_PLUS, 667), (mozjs_anon_sym_DASH_DASH, 667),
     (mozjs_sym_comment, 5), (mozjs_anon_sym_BQUOTE, 669),
     (mozjs_sym_number, 437), (mozjs_sym_private_property_identifier, 439),
     (mozjs_sym_this, 441), (mozjs_sym_super, 441),
     (mozjs_sym_true, 441), (mozjs_sym_false, 441),
     (mozjs_sym_null, 441), (mozjs_sym_undefined, 443),
     (mozjs_anon_sym_AT, 93), (mozjs_anon_sym_static, 386),
     (mozjs_anon_sym_get, 386), (mozjs_anon_sym_set, 386),
     (mozjs_sym_html_comment, 5)]"

definition mozjs_parse_row_312 :: "(TSSymbol \<times> nat) list" where
  "mozjs_parse_row_312 =
    [(mozjs_sym_import, 1333), (mozjs_sym_parenthesized_expression, 559),
     (mozjs_sym_expression, 732), (mozjs_sym_primary_expression, 693),
     (mozjs_sym_yield_expression, 743), (mozjs_sym_object, 793),
     (mozjs_sym_object_pattern, 1811), (mozjs_sym_array, 793),
     (mozjs_sym_array_pattern, 1811), (mozjs_sym_jsx_element, 743),
     (mozjs_sym_jsx_opening_element, 1158), (mozjs_sym_jsx_self_closing_element, 743),
     (mozjs_sym_class, 793), (mozjs_sym_function_expression, 793),
     (mozjs_sym_generator_function, 793), (mozjs_sym_arrow_function, 793),
     (mozjs_sym_call_expression, 793), (mozjs_sym_new_expression, 692),
     (mozjs_sym_await_expression, 743), (mozjs_sym_member_expression, 559),
     (mozjs_sym_subscript_expression, 559), (mozjs_sym_assignment_expression, 743),
     (mozjs_sym__augmented_assignment_lhs, 1143), (mozjs_sym_augmented_assignment_expression,
       743),
     (mozjs_sym__destructuring_pattern, 1811), (mozjs_sym_ternary_expression, 743),
     (mozjs_sym_binary_expression, 743), (mozjs_sym_unary_expression, 743),
     (mozjs_sym_update_expression, 743), (mozjs_sym_string, 793),
     (mozjs_sym_template_string, 793), (mozjs_sym_regex, 793),
     (mozjs_sym_meta_property, 793), (mozjs_sym_decorator, 1112),
     (mozjs_sym_formal_parameters, 1812), (mozjs_aux_sym_export_statement_repeat1, 1331),
     (mozjs_sym_identifier, 551), (mozjs_anon_sym_export, 553),
     (mozjs_anon_sym_LBRACE, 309), (mozjs_anon_sym_import, 315),
     (mozjs_anon_sym_let, 553), (mozjs_anon_sym_await, 555),
     (mozjs_anon_sym_LPAREN, 37), (mozjs_anon_sym_yield, 557),
     (mozjs_anon_sym_LBRACK, 59), (mozjs_anon_sym_LT, 61),
     (mozjs_anon_sym_DQUOTE, 63), (mozjs_anon_sym_SQUOTE, 65),
     (mozjs_anon_sym_class, 336), (mozjs_anon_sym_async, 561),
     (mozjs_anon_sym_function, 340), (mozjs_anon_sym_new, 565),
     (mozjs_anon_sym_PLUS, 573), (mozjs_anon_sym_DASH, 573),
     (mozjs_anon_sym_SLASH, 677), (mozjs_anon_sym_BANG, 575),
     (mozjs_anon_sym_TILDE, 575), (mozjs_anon_sym_typeof, 573),
     (mozjs_anon_sym_void, 573), (mozjs_anon_sym_delete, 573),
     (mozjs_anon_sym_PLUS_PLUS, 679), (mozjs_anon_sym_DASH_DASH, 679),
     (mozjs_sym_comment, 5), (mozjs_anon_sym_BQUOTE, 83),
     (mozjs_sym_number, 85), (mozjs_sym_private_property_identifier, 580),
     (mozjs_sym_this, 89), (mozjs_sym_super, 89),
     (mozjs_sym_true, 89), (mozjs_sym_false, 89),
     (mozjs_sym_null, 89), (mozjs_sym_undefined, 582),
     (mozjs_anon_sym_AT, 93), (mozjs_anon_sym_static, 553),
     (mozjs_anon_sym_get, 553), (mozjs_anon_sym_set, 553),
     (mozjs_sym_html_comment, 5)]"

definition mozjs_parse_row_313 :: "(TSSymbol \<times> nat) list" where
  "mozjs_parse_row_313 =
    [(mozjs_sym_import, 1340), (mozjs_sym_parenthesized_expression, 525),
     (mozjs_sym_expression, 820), (mozjs_sym_primary_expression, 584),
     (mozjs_sym_yield_expression, 638), (mozjs_sym_object, 645),
     (mozjs_sym_object_pattern, 1827), (mozjs_sym_array, 645),
     (mozjs_sym_array_pattern, 1827), (mozjs_sym_jsx_element, 638),
     (mozjs_sym_jsx_opening_element, 1152), (mozjs_sym_jsx_self_closing_element, 638),
     (mozjs_sym_class, 645), (mozjs_sym_function_expression, 645),
     (mozjs_sym_generator_function, 645), (mozjs_sym_arrow_function, 645),
     (mozjs_sym_call_expression, 645), (mozjs_sym_new_expression, 587),
     (mozjs_sym_await_expression, 638), (mozjs_sym_member_expression, 525),
     (mozjs_sym_subscript_expression, 525), (mozjs_sym_assignment_expression, 638),
     (mozjs_sym__augmented_assignment_lhs, 1145), (mozjs_sym_augmented_assignment_expression,
       638),
     (mozjs_sym__destructuring_pattern, 1827), (mozjs_sym_ternary_expression, 638),
     (mozjs_sym_binary_expression, 638), (mozjs_sym_unary_expression, 638),
     (mozjs_sym_update_expression, 638), (mozjs_sym_string, 645),
     (mozjs_sym_template_string, 645), (mozjs_sym_regex, 645),
     (mozjs_sym_meta_property, 645), (mozjs_sym_decorator, 1112),
     (mozjs_sym_formal_parameters, 1777), (mozjs_aux_sym_export_statement_repeat1, 1395),
     (mozjs_sym_identifier, 384), (mozjs_anon_sym_export, 386),
     (mozjs_anon_sym_LBRACE, 388), (mozjs_anon_sym_import, 390),
     (mozjs_anon_sym_let, 386), (mozjs_anon_sym_await, 392),
     (mozjs_anon_sym_LPAREN, 657), (mozjs_anon_sym_yield, 397),
     (mozjs_anon_sym_LBRACK, 661), (mozjs_anon_sym_LT, 827),
     (mozjs_anon_sym_DQUOTE, 407), (mozjs_anon_sym_SQUOTE, 409),
     (mozjs_anon_sym_class, 411), (mozjs_anon_sym_async, 413),
     (mozjs_anon_sym_function, 415), (mozjs_anon_sym_new, 419),
     (mozjs_anon_sym_PLUS, 427), (mozjs_anon_sym_DASH, 427),
     (mozjs_anon_sym_SLASH, 665), (mozjs_anon_sym_BANG, 429),
     (mozjs_anon_sym_TILDE, 429), (mozjs_anon_sym_typeof, 427),
     (mozjs_anon_sym_void, 427), (mozjs_anon_sym_delete, 427),
     (mozjs_anon_sym_PLUS_PLUS, 667), (mozjs_anon_sym_DASH_DASH, 667),
     (mozjs_sym_comment, 5), (mozjs_anon_sym_BQUOTE, 669),
     (mozjs_sym_number, 437), (mozjs_sym_private_property_identifier, 439),
     (mozjs_sym_this, 441), (mozjs_sym_super, 441),
     (mozjs_sym_true, 441), (mozjs_sym_false, 441),
     (mozjs_sym_null, 441), (mozjs_sym_undefined, 443),
     (mozjs_anon_sym_AT, 93), (mozjs_anon_sym_static, 386),
     (mozjs_anon_sym_get, 386), (mozjs_anon_sym_set, 386),
     (mozjs_sym_html_comment, 5)]"

definition mozjs_parse_row_314 :: "(TSSymbol \<times> nat) list" where
  "mozjs_parse_row_314 =
    [(mozjs_sym_import, 1340), (mozjs_sym_parenthesized_expression, 499),
     (mozjs_sym_expression, 591), (mozjs_sym_primary_expression, 584),
     (mozjs_sym_yield_expression, 638), (mozjs_sym_object, 645),
     (mozjs_sym_object_pattern, 1766), (mozjs_sym_array, 645),
     (mozjs_sym_array_pattern, 1766), (mozjs_sym_jsx_element, 638),
     (mozjs_sym_jsx_opening_element, 1152), (mozjs_sym_jsx_self_closing_element, 638),
     (mozjs_sym_class, 645), (mozjs_sym_function_expression, 645),
     (mozjs_sym_generator_function, 645), (mozjs_sym_arrow_function, 645),
     (mozjs_sym_call_expression, 645), (mozjs_sym_new_expression, 587),
     (mozjs_sym_await_expression, 638), (mozjs_sym_member_expression, 499),
     (mozjs_sym_subscript_expression, 499), (mozjs_sym_assignment_expression, 638),
     (mozjs_sym__augmented_assignment_lhs, 1144), (mozjs_sym_augmented_assignment_expression,
       638),
     (mozjs_sym__destructuring_pattern, 1766), (mozjs_sym_ternary_expression, 638),
     (mozjs_sym_binary_expression, 638), (mozjs_sym_unary_expression, 638),
     (mozjs_sym_update_expression, 638), (mozjs_sym_string, 645),
     (mozjs_sym_template_string, 645), (mozjs_sym_regex, 645),
     (mozjs_sym_meta_property, 645), (mozjs_sym_decorator, 1112),
     (mozjs_sym_formal_parameters, 1828), (mozjs_aux_sym_export_statement_repeat1, 1395),
     (mozjs_sym_identifier, 461), (mozjs_anon_sym_export, 463),
     (mozjs_anon_sym_LBRACE, 465), (mozjs_anon_sym_import, 390),
     (mozjs_anon_sym_let, 463), (mozjs_anon_sym_await, 467),
     (mozjs_anon_sym_LPAREN, 657), (mozjs_anon_sym_yield, 469),
     (mozjs_anon_sym_LBRACK, 683), (mozjs_anon_sym_LT, 827),
     (mozjs_anon_sym_DQUOTE, 407), (mozjs_anon_sym_SQUOTE, 409),
     (mozjs_anon_sym_class, 411), (mozjs_anon_sym_async, 476),
     (mozjs_anon_sym_function, 415), (mozjs_anon_sym_new, 478),
     (mozjs_anon_sym_PLUS, 483), (mozjs_anon_sym_DASH, 483),
     (mozjs_anon_sym_SLASH, 665), (mozjs_anon_sym_BANG, 485),
     (mozjs_anon_sym_TILDE, 485), (mozjs_anon_sym_typeof, 483),
     (mozjs_anon_sym_void, 483), (mozjs_anon_sym_delete, 483),
     (mozjs_anon_sym_PLUS_PLUS, 691), (mozjs_anon_sym_DASH_DASH, 691),
     (mozjs_sym_comment, 5), (mozjs_anon_sym_BQUOTE, 669),
     (mozjs_sym_number, 437), (mozjs_sym_private_property_identifier, 490),
     (mozjs_sym_this, 441), (mozjs_sym_super, 441),
     (mozjs_sym_true, 441), (mozjs_sym_false, 441),
     (mozjs_sym_null, 441), (mozjs_sym_undefined, 492),
     (mozjs_anon_sym_AT, 93), (mozjs_anon_sym_static, 463),
     (mozjs_anon_sym_get, 463), (mozjs_anon_sym_set, 463),
     (mozjs_sym_html_comment, 5)]"

definition mozjs_parse_row_315 :: "(TSSymbol \<times> nat) list" where
  "mozjs_parse_row_315 =
    [(mozjs_sym_import, 1340), (mozjs_sym_parenthesized_expression, 499),
     (mozjs_sym_expression, 585), (mozjs_sym_primary_expression, 584),
     (mozjs_sym_yield_expression, 638), (mozjs_sym_object, 645),
     (mozjs_sym_object_pattern, 1766), (mozjs_sym_array, 645),
     (mozjs_sym_array_pattern, 1766), (mozjs_sym_jsx_element, 638),
     (mozjs_sym_jsx_opening_element, 1152), (mozjs_sym_jsx_self_closing_element, 638),
     (mozjs_sym_class, 645), (mozjs_sym_function_expression, 645),
     (mozjs_sym_generator_function, 645), (mozjs_sym_arrow_function, 645),
     (mozjs_sym_call_expression, 645), (mozjs_sym_new_expression, 587),
     (mozjs_sym_await_expression, 638), (mozjs_sym_member_expression, 499),
     (mozjs_sym_subscript_expression, 499), (mozjs_sym_assignment_expression, 638),
     (mozjs_sym__augmented_assignment_lhs, 1144), (mozjs_sym_augmented_assignment_expression,
       638),
     (mozjs_sym__destructuring_pattern, 1766), (mozjs_sym_ternary_expression, 638),
     (mozjs_sym_binary_expression, 638), (mozjs_sym_unary_expression, 638),
     (mozjs_sym_update_expression, 638), (mozjs_sym_string, 645),
     (mozjs_sym_template_string, 645), (mozjs_sym_regex, 645),
     (mozjs_sym_meta_property, 645), (mozjs_sym_decorator, 1112),
     (mozjs_sym_formal_parameters, 1828), (mozjs_aux_sym_export_statement_repeat1, 1395),
     (mozjs_sym_identifier, 461), (mozjs_anon_sym_export, 463),
     (mozjs_anon_sym_LBRACE, 465), (mozjs_anon_sym_import, 390),
     (mozjs_anon_sym_let, 463), (mozjs_anon_sym_await, 467),
     (mozjs_anon_sym_LPAREN, 657), (mozjs_anon_sym_yield, 469),
     (mozjs_anon_sym_LBRACK, 683), (mozjs_anon_sym_LT, 827),
     (mozjs_anon_sym_DQUOTE, 407), (mozjs_anon_sym_SQUOTE, 409),
     (mozjs_anon_sym_class, 411), (mozjs_anon_sym_async, 476),
     (mozjs_anon_sym_function, 415), (mozjs_anon_sym_new, 478),
     (mozjs_anon_sym_PLUS, 483), (mozjs_anon_sym_DASH, 483),
     (mozjs_anon_sym_SLASH, 665), (mozjs_anon_sym_BANG, 485),
     (mozjs_anon_sym_TILDE, 485), (mozjs_anon_sym_typeof, 483),
     (mozjs_anon_sym_void, 483), (mozjs_anon_sym_delete, 483),
     (mozjs_anon_sym_PLUS_PLUS, 691), (mozjs_anon_sym_DASH_DASH, 691),
     (mozjs_sym_comment, 5), (mozjs_anon_sym_BQUOTE, 669),
     (mozjs_sym_number, 437), (mozjs_sym_private_property_identifier, 490),
     (mozjs_sym_this, 441), (mozjs_sym_super, 441),
     (mozjs_sym_true, 441), (mozjs_sym_false, 441),
     (mozjs_sym_null, 441), (mozjs_sym_undefined, 492),
     (mozjs_anon_sym_AT, 93), (mozjs_anon_sym_static, 463),
     (mozjs_anon_sym_get, 463), (mozjs_anon_sym_set, 463),
     (mozjs_sym_html_comment, 5)]"

definition mozjs_parse_row_316 :: "(TSSymbol \<times> nat) list" where
  "mozjs_parse_row_316 =
    [(mozjs_sym_import, 1340), (mozjs_sym_parenthesized_expression, 499),
     (mozjs_sym_expression, 916), (mozjs_sym_primary_expression, 584),
     (mozjs_sym_yield_expression, 638), (mozjs_sym_object, 645),
     (mozjs_sym_object_pattern, 1766), (mozjs_sym_array, 645),
     (mozjs_sym_array_pattern, 1766), (mozjs_sym_jsx_element, 638),
     (mozjs_sym_jsx_opening_element, 1152), (mozjs_sym_jsx_self_closing_element, 638),
     (mozjs_sym_class, 645), (mozjs_sym_function_expression, 645),
     (mozjs_sym_generator_function, 645), (mozjs_sym_arrow_function, 645),
     (mozjs_sym_call_expression, 645), (mozjs_sym_new_expression, 587),
     (mozjs_sym_await_expression, 638), (mozjs_sym_member_expression, 499),
     (mozjs_sym_subscript_expression, 499), (mozjs_sym_assignment_expression, 638),
     (mozjs_sym__augmented_assignment_lhs, 1144), (mozjs_sym_augmented_assignment_expression,
       638),
     (mozjs_sym__destructuring_pattern, 1766), (mozjs_sym_ternary_expression, 638),
     (mozjs_sym_binary_expression, 638), (mozjs_sym_unary_expression, 638),
     (mozjs_sym_update_expression, 638), (mozjs_sym_string, 645),
     (mozjs_sym_template_string, 645), (mozjs_sym_regex, 645),
     (mozjs_sym_meta_property, 645), (mozjs_sym_decorator, 1112),
     (mozjs_sym_formal_parameters, 1828), (mozjs_aux_sym_export_statement_repeat1, 1395),
     (mozjs_sym_identifier, 461), (mozjs_anon_sym_export, 463),
     (mozjs_anon_sym_LBRACE, 465), (mozjs_anon_sym_import, 390),
     (mozjs_anon_sym_let, 463), (mozjs_anon_sym_await, 467),
     (mozjs_anon_sym_LPAREN, 657), (mozjs_anon_sym_yield, 469),
     (mozjs_anon_sym_LBRACK, 683), (mozjs_anon_sym_LT, 827),
     (mozjs_anon_sym_DQUOTE, 407), (mozjs_anon_sym_SQUOTE, 409),
     (mozjs_anon_sym_class, 411), (mozjs_anon_sym_async, 476),
     (mozjs_anon_sym_function, 415), (mozjs_anon_sym_new, 478),
     (mozjs_anon_sym_PLUS, 483), (mozjs_anon_sym_DASH, 483),
     (mozjs_anon_sym_SLASH, 665), (mozjs_anon_sym_BANG, 485),
     (mozjs_anon_sym_TILDE, 485), (mozjs_anon_sym_typeof, 483),
     (mozjs_anon_sym_void, 483), (mozjs_anon_sym_delete, 483),
     (mozjs_anon_sym_PLUS_PLUS, 691), (mozjs_anon_sym_DASH_DASH, 691),
     (mozjs_sym_comment, 5), (mozjs_anon_sym_BQUOTE, 669),
     (mozjs_sym_number, 437), (mozjs_sym_private_property_identifier, 490),
     (mozjs_sym_this, 441), (mozjs_sym_super, 441),
     (mozjs_sym_true, 441), (mozjs_sym_false, 441),
     (mozjs_sym_null, 441), (mozjs_sym_undefined, 492),
     (mozjs_anon_sym_AT, 93), (mozjs_anon_sym_static, 463),
     (mozjs_anon_sym_get, 463), (mozjs_anon_sym_set, 463),
     (mozjs_sym_html_comment, 5)]"

definition mozjs_parse_row_317 :: "(TSSymbol \<times> nat) list" where
  "mozjs_parse_row_317 =
    [(mozjs_sym_import, 1340), (mozjs_sym_parenthesized_expression, 499),
     (mozjs_sym_expression, 918), (mozjs_sym_primary_expression, 584),
     (mozjs_sym_yield_expression, 638), (mozjs_sym_object, 645),
     (mozjs_sym_object_pattern, 1766), (mozjs_sym_array, 645),
     (mozjs_sym_array_pattern, 1766), (mozjs_sym_jsx_element, 638),
     (mozjs_sym_jsx_opening_element, 1152), (mozjs_sym_jsx_self_closing_element, 638),
     (mozjs_sym_class, 645), (mozjs_sym_function_expression, 645),
     (mozjs_sym_generator_function, 645), (mozjs_sym_arrow_function, 645),
     (mozjs_sym_call_expression, 645), (mozjs_sym_new_expression, 587),
     (mozjs_sym_await_expression, 638), (mozjs_sym_member_expression, 499),
     (mozjs_sym_subscript_expression, 499), (mozjs_sym_assignment_expression, 638),
     (mozjs_sym__augmented_assignment_lhs, 1144), (mozjs_sym_augmented_assignment_expression,
       638),
     (mozjs_sym__destructuring_pattern, 1766), (mozjs_sym_ternary_expression, 638),
     (mozjs_sym_binary_expression, 638), (mozjs_sym_unary_expression, 638),
     (mozjs_sym_update_expression, 638), (mozjs_sym_string, 645),
     (mozjs_sym_template_string, 645), (mozjs_sym_regex, 645),
     (mozjs_sym_meta_property, 645), (mozjs_sym_decorator, 1112),
     (mozjs_sym_formal_parameters, 1828), (mozjs_aux_sym_export_statement_repeat1, 1395),
     (mozjs_sym_identifier, 461), (mozjs_anon_sym_export, 463),
     (mozjs_anon_sym_LBRACE, 465), (mozjs_anon_sym_import, 390),
     (mozjs_anon_sym_let, 463), (mozjs_anon_sym_await, 467),
     (mozjs_anon_sym_LPAREN, 657), (mozjs_anon_sym_yield, 469),
     (mozjs_anon_sym_LBRACK, 683), (mozjs_anon_sym_LT, 827),
     (mozjs_anon_sym_DQUOTE, 407), (mozjs_anon_sym_SQUOTE, 409),
     (mozjs_anon_sym_class, 411), (mozjs_anon_sym_async, 476),
     (mozjs_anon_sym_function, 415), (mozjs_anon_sym_new, 478),
     (mozjs_anon_sym_PLUS, 483), (mozjs_anon_sym_DASH, 483),
     (mozjs_anon_sym_SLASH, 665), (mozjs_anon_sym_BANG, 485),
     (mozjs_anon_sym_TILDE, 485), (mozjs_anon_sym_typeof, 483),
     (mozjs_anon_sym_void, 483), (mozjs_anon_sym_delete, 483),
     (mozjs_anon_sym_PLUS_PLUS, 691), (mozjs_anon_sym_DASH_DASH, 691),
     (mozjs_sym_comment, 5), (mozjs_anon_sym_BQUOTE, 669),
     (mozjs_sym_number, 437), (mozjs_sym_private_property_identifier, 490),
     (mozjs_sym_this, 441), (mozjs_sym_super, 441),
     (mozjs_sym_true, 441), (mozjs_sym_false, 441),
     (mozjs_sym_null, 441), (mozjs_sym_undefined, 492),
     (mozjs_anon_sym_AT, 93), (mozjs_anon_sym_static, 463),
     (mozjs_anon_sym_get, 463), (mozjs_anon_sym_set, 463),
     (mozjs_sym_html_comment, 5)]"

definition mozjs_parse_row_318 :: "(TSSymbol \<times> nat) list" where
  "mozjs_parse_row_318 =
    [(mozjs_sym_import, 1340), (mozjs_sym_parenthesized_expression, 499),
     (mozjs_sym_expression, 920), (mozjs_sym_primary_expression, 584),
     (mozjs_sym_yield_expression, 638), (mozjs_sym_object, 645),
     (mozjs_sym_object_pattern, 1766), (mozjs_sym_array, 645),
     (mozjs_sym_array_pattern, 1766), (mozjs_sym_jsx_element, 638),
     (mozjs_sym_jsx_opening_element, 1152), (mozjs_sym_jsx_self_closing_element, 638),
     (mozjs_sym_class, 645), (mozjs_sym_function_expression, 645),
     (mozjs_sym_generator_function, 645), (mozjs_sym_arrow_function, 645),
     (mozjs_sym_call_expression, 645), (mozjs_sym_new_expression, 587),
     (mozjs_sym_await_expression, 638), (mozjs_sym_member_expression, 499),
     (mozjs_sym_subscript_expression, 499), (mozjs_sym_assignment_expression, 638),
     (mozjs_sym__augmented_assignment_lhs, 1144), (mozjs_sym_augmented_assignment_expression,
       638),
     (mozjs_sym__destructuring_pattern, 1766), (mozjs_sym_ternary_expression, 638),
     (mozjs_sym_binary_expression, 638), (mozjs_sym_unary_expression, 638),
     (mozjs_sym_update_expression, 638), (mozjs_sym_string, 645),
     (mozjs_sym_template_string, 645), (mozjs_sym_regex, 645),
     (mozjs_sym_meta_property, 645), (mozjs_sym_decorator, 1112),
     (mozjs_sym_formal_parameters, 1828), (mozjs_aux_sym_export_statement_repeat1, 1395),
     (mozjs_sym_identifier, 461), (mozjs_anon_sym_export, 463),
     (mozjs_anon_sym_LBRACE, 465), (mozjs_anon_sym_import, 390),
     (mozjs_anon_sym_let, 463), (mozjs_anon_sym_await, 467),
     (mozjs_anon_sym_LPAREN, 657), (mozjs_anon_sym_yield, 469),
     (mozjs_anon_sym_LBRACK, 683), (mozjs_anon_sym_LT, 827),
     (mozjs_anon_sym_DQUOTE, 407), (mozjs_anon_sym_SQUOTE, 409),
     (mozjs_anon_sym_class, 411), (mozjs_anon_sym_async, 476),
     (mozjs_anon_sym_function, 415), (mozjs_anon_sym_new, 478),
     (mozjs_anon_sym_PLUS, 483), (mozjs_anon_sym_DASH, 483),
     (mozjs_anon_sym_SLASH, 665), (mozjs_anon_sym_BANG, 485),
     (mozjs_anon_sym_TILDE, 485), (mozjs_anon_sym_typeof, 483),
     (mozjs_anon_sym_void, 483), (mozjs_anon_sym_delete, 483),
     (mozjs_anon_sym_PLUS_PLUS, 691), (mozjs_anon_sym_DASH_DASH, 691),
     (mozjs_sym_comment, 5), (mozjs_anon_sym_BQUOTE, 669),
     (mozjs_sym_number, 437), (mozjs_sym_private_property_identifier, 490),
     (mozjs_sym_this, 441), (mozjs_sym_super, 441),
     (mozjs_sym_true, 441), (mozjs_sym_false, 441),
     (mozjs_sym_null, 441), (mozjs_sym_undefined, 492),
     (mozjs_anon_sym_AT, 93), (mozjs_anon_sym_static, 463),
     (mozjs_anon_sym_get, 463), (mozjs_anon_sym_set, 463),
     (mozjs_sym_html_comment, 5)]"

definition mozjs_parse_row_319 :: "(TSSymbol \<times> nat) list" where
  "mozjs_parse_row_319 =
    [(mozjs_sym_import, 1340), (mozjs_sym_parenthesized_expression, 499),
     (mozjs_sym_expression, 922), (mozjs_sym_primary_expression, 584),
     (mozjs_sym_yield_expression, 638), (mozjs_sym_object, 645),
     (mozjs_sym_object_pattern, 1766), (mozjs_sym_array, 645),
     (mozjs_sym_array_pattern, 1766), (mozjs_sym_jsx_element, 638),
     (mozjs_sym_jsx_opening_element, 1152), (mozjs_sym_jsx_self_closing_element, 638),
     (mozjs_sym_class, 645), (mozjs_sym_function_expression, 645),
     (mozjs_sym_generator_function, 645), (mozjs_sym_arrow_function, 645),
     (mozjs_sym_call_expression, 645), (mozjs_sym_new_expression, 587),
     (mozjs_sym_await_expression, 638), (mozjs_sym_member_expression, 499),
     (mozjs_sym_subscript_expression, 499), (mozjs_sym_assignment_expression, 638),
     (mozjs_sym__augmented_assignment_lhs, 1144), (mozjs_sym_augmented_assignment_expression,
       638),
     (mozjs_sym__destructuring_pattern, 1766), (mozjs_sym_ternary_expression, 638),
     (mozjs_sym_binary_expression, 638), (mozjs_sym_unary_expression, 638),
     (mozjs_sym_update_expression, 638), (mozjs_sym_string, 645),
     (mozjs_sym_template_string, 645), (mozjs_sym_regex, 645),
     (mozjs_sym_meta_property, 645), (mozjs_sym_decorator, 1112),
     (mozjs_sym_formal_parameters, 1828), (mozjs_aux_sym_export_statement_repeat1, 1395),
     (mozjs_sym_identifier, 461), (mozjs_anon_sym_export, 463),
     (mozjs_anon_sym_LBRACE, 465), (mozjs_anon_sym_import, 390),
     (mozjs_anon_sym_let, 463), (mozjs_anon_sym_await, 467),
     (mozjs_anon_sym_LPAREN, 657), (mozjs_anon_sym_yield, 469),
     (mozjs_anon_sym_LBRACK, 683), (mozjs_anon_sym_LT, 827),
     (mozjs_anon_sym_DQUOTE, 407), (mozjs_anon_sym_SQUOTE, 409),
     (mozjs_anon_sym_class, 411), (mozjs_anon_sym_async, 476),
     (mozjs_anon_sym_function, 415), (mozjs_anon_sym_new, 478),
     (mozjs_anon_sym_PLUS, 483), (mozjs_anon_sym_DASH, 483),
     (mozjs_anon_sym_SLASH, 665), (mozjs_anon_sym_BANG, 485),
     (mozjs_anon_sym_TILDE, 485), (mozjs_anon_sym_typeof, 483),
     (mozjs_anon_sym_void, 483), (mozjs_anon_sym_delete, 483),
     (mozjs_anon_sym_PLUS_PLUS, 691), (mozjs_anon_sym_DASH_DASH, 691),
     (mozjs_sym_comment, 5), (mozjs_anon_sym_BQUOTE, 669),
     (mozjs_sym_number, 437), (mozjs_sym_private_property_identifier, 490),
     (mozjs_sym_this, 441), (mozjs_sym_super, 441),
     (mozjs_sym_true, 441), (mozjs_sym_false, 441),
     (mozjs_sym_null, 441), (mozjs_sym_undefined, 492),
     (mozjs_anon_sym_AT, 93), (mozjs_anon_sym_static, 463),
     (mozjs_anon_sym_get, 463), (mozjs_anon_sym_set, 463),
     (mozjs_sym_html_comment, 5)]"

definition mozjs_parse_row_320 :: "(TSSymbol \<times> nat) list" where
  "mozjs_parse_row_320 =
    [(mozjs_sym_import, 1340), (mozjs_sym_parenthesized_expression, 499),
     (mozjs_sym_expression, 923), (mozjs_sym_primary_expression, 584),
     (mozjs_sym_yield_expression, 638), (mozjs_sym_object, 645),
     (mozjs_sym_object_pattern, 1766), (mozjs_sym_array, 645),
     (mozjs_sym_array_pattern, 1766), (mozjs_sym_jsx_element, 638),
     (mozjs_sym_jsx_opening_element, 1152), (mozjs_sym_jsx_self_closing_element, 638),
     (mozjs_sym_class, 645), (mozjs_sym_function_expression, 645),
     (mozjs_sym_generator_function, 645), (mozjs_sym_arrow_function, 645),
     (mozjs_sym_call_expression, 645), (mozjs_sym_new_expression, 587),
     (mozjs_sym_await_expression, 638), (mozjs_sym_member_expression, 499),
     (mozjs_sym_subscript_expression, 499), (mozjs_sym_assignment_expression, 638),
     (mozjs_sym__augmented_assignment_lhs, 1144), (mozjs_sym_augmented_assignment_expression,
       638),
     (mozjs_sym__destructuring_pattern, 1766), (mozjs_sym_ternary_expression, 638),
     (mozjs_sym_binary_expression, 638), (mozjs_sym_unary_expression, 638),
     (mozjs_sym_update_expression, 638), (mozjs_sym_string, 645),
     (mozjs_sym_template_string, 645), (mozjs_sym_regex, 645),
     (mozjs_sym_meta_property, 645), (mozjs_sym_decorator, 1112),
     (mozjs_sym_formal_parameters, 1828), (mozjs_aux_sym_export_statement_repeat1, 1395),
     (mozjs_sym_identifier, 461), (mozjs_anon_sym_export, 463),
     (mozjs_anon_sym_LBRACE, 465), (mozjs_anon_sym_import, 390),
     (mozjs_anon_sym_let, 463), (mozjs_anon_sym_await, 467),
     (mozjs_anon_sym_LPAREN, 657), (mozjs_anon_sym_yield, 469),
     (mozjs_anon_sym_LBRACK, 683), (mozjs_anon_sym_LT, 827),
     (mozjs_anon_sym_DQUOTE, 407), (mozjs_anon_sym_SQUOTE, 409),
     (mozjs_anon_sym_class, 411), (mozjs_anon_sym_async, 476),
     (mozjs_anon_sym_function, 415), (mozjs_anon_sym_new, 478),
     (mozjs_anon_sym_PLUS, 483), (mozjs_anon_sym_DASH, 483),
     (mozjs_anon_sym_SLASH, 665), (mozjs_anon_sym_BANG, 485),
     (mozjs_anon_sym_TILDE, 485), (mozjs_anon_sym_typeof, 483),
     (mozjs_anon_sym_void, 483), (mozjs_anon_sym_delete, 483),
     (mozjs_anon_sym_PLUS_PLUS, 691), (mozjs_anon_sym_DASH_DASH, 691),
     (mozjs_sym_comment, 5), (mozjs_anon_sym_BQUOTE, 669),
     (mozjs_sym_number, 437), (mozjs_sym_private_property_identifier, 490),
     (mozjs_sym_this, 441), (mozjs_sym_super, 441),
     (mozjs_sym_true, 441), (mozjs_sym_false, 441),
     (mozjs_sym_null, 441), (mozjs_sym_undefined, 492),
     (mozjs_anon_sym_AT, 93), (mozjs_anon_sym_static, 463),
     (mozjs_anon_sym_get, 463), (mozjs_anon_sym_set, 463),
     (mozjs_sym_html_comment, 5)]"

definition mozjs_parse_row_321 :: "(TSSymbol \<times> nat) list" where
  "mozjs_parse_row_321 =
    [(mozjs_sym_import, 1340), (mozjs_sym_parenthesized_expression, 499),
     (mozjs_sym_expression, 924), (mozjs_sym_primary_expression, 584),
     (mozjs_sym_yield_expression, 638), (mozjs_sym_object, 645),
     (mozjs_sym_object_pattern, 1766), (mozjs_sym_array, 645),
     (mozjs_sym_array_pattern, 1766), (mozjs_sym_jsx_element, 638),
     (mozjs_sym_jsx_opening_element, 1152), (mozjs_sym_jsx_self_closing_element, 638),
     (mozjs_sym_class, 645), (mozjs_sym_function_expression, 645),
     (mozjs_sym_generator_function, 645), (mozjs_sym_arrow_function, 645),
     (mozjs_sym_call_expression, 645), (mozjs_sym_new_expression, 587),
     (mozjs_sym_await_expression, 638), (mozjs_sym_member_expression, 499),
     (mozjs_sym_subscript_expression, 499), (mozjs_sym_assignment_expression, 638),
     (mozjs_sym__augmented_assignment_lhs, 1144), (mozjs_sym_augmented_assignment_expression,
       638),
     (mozjs_sym__destructuring_pattern, 1766), (mozjs_sym_ternary_expression, 638),
     (mozjs_sym_binary_expression, 638), (mozjs_sym_unary_expression, 638),
     (mozjs_sym_update_expression, 638), (mozjs_sym_string, 645),
     (mozjs_sym_template_string, 645), (mozjs_sym_regex, 645),
     (mozjs_sym_meta_property, 645), (mozjs_sym_decorator, 1112),
     (mozjs_sym_formal_parameters, 1828), (mozjs_aux_sym_export_statement_repeat1, 1395),
     (mozjs_sym_identifier, 461), (mozjs_anon_sym_export, 463),
     (mozjs_anon_sym_LBRACE, 465), (mozjs_anon_sym_import, 390),
     (mozjs_anon_sym_let, 463), (mozjs_anon_sym_await, 467),
     (mozjs_anon_sym_LPAREN, 657), (mozjs_anon_sym_yield, 469),
     (mozjs_anon_sym_LBRACK, 683), (mozjs_anon_sym_LT, 827),
     (mozjs_anon_sym_DQUOTE, 407), (mozjs_anon_sym_SQUOTE, 409),
     (mozjs_anon_sym_class, 411), (mozjs_anon_sym_async, 476),
     (mozjs_anon_sym_function, 415), (mozjs_anon_sym_new, 478),
     (mozjs_anon_sym_PLUS, 483), (mozjs_anon_sym_DASH, 483),
     (mozjs_anon_sym_SLASH, 665), (mozjs_anon_sym_BANG, 485),
     (mozjs_anon_sym_TILDE, 485), (mozjs_anon_sym_typeof, 483),
     (mozjs_anon_sym_void, 483), (mozjs_anon_sym_delete, 483),
     (mozjs_anon_sym_PLUS_PLUS, 691), (mozjs_anon_sym_DASH_DASH, 691),
     (mozjs_sym_comment, 5), (mozjs_anon_sym_BQUOTE, 669),
     (mozjs_sym_number, 437), (mozjs_sym_private_property_identifier, 490),
     (mozjs_sym_this, 441), (mozjs_sym_super, 441),
     (mozjs_sym_true, 441), (mozjs_sym_false, 441),
     (mozjs_sym_null, 441), (mozjs_sym_undefined, 492),
     (mozjs_anon_sym_AT, 93), (mozjs_anon_sym_static, 463),
     (mozjs_anon_sym_get, 463), (mozjs_anon_sym_set, 463),
     (mozjs_sym_html_comment, 5)]"

definition mozjs_parse_row_322 :: "(TSSymbol \<times> nat) list" where
  "mozjs_parse_row_322 =
    [(mozjs_sym_import, 1340), (mozjs_sym_parenthesized_expression, 499),
     (mozjs_sym_expression, 925), (mozjs_sym_primary_expression, 584),
     (mozjs_sym_yield_expression, 638), (mozjs_sym_object, 645),
     (mozjs_sym_object_pattern, 1766), (mozjs_sym_array, 645),
     (mozjs_sym_array_pattern, 1766), (mozjs_sym_jsx_element, 638),
     (mozjs_sym_jsx_opening_element, 1152), (mozjs_sym_jsx_self_closing_element, 638),
     (mozjs_sym_class, 645), (mozjs_sym_function_expression, 645),
     (mozjs_sym_generator_function, 645), (mozjs_sym_arrow_function, 645),
     (mozjs_sym_call_expression, 645), (mozjs_sym_new_expression, 587),
     (mozjs_sym_await_expression, 638), (mozjs_sym_member_expression, 499),
     (mozjs_sym_subscript_expression, 499), (mozjs_sym_assignment_expression, 638),
     (mozjs_sym__augmented_assignment_lhs, 1144), (mozjs_sym_augmented_assignment_expression,
       638),
     (mozjs_sym__destructuring_pattern, 1766), (mozjs_sym_ternary_expression, 638),
     (mozjs_sym_binary_expression, 638), (mozjs_sym_unary_expression, 638),
     (mozjs_sym_update_expression, 638), (mozjs_sym_string, 645),
     (mozjs_sym_template_string, 645), (mozjs_sym_regex, 645),
     (mozjs_sym_meta_property, 645), (mozjs_sym_decorator, 1112),
     (mozjs_sym_formal_parameters, 1828), (mozjs_aux_sym_export_statement_repeat1, 1395),
     (mozjs_sym_identifier, 461), (mozjs_anon_sym_export, 463),
     (mozjs_anon_sym_LBRACE, 465), (mozjs_anon_sym_import, 390),
     (mozjs_anon_sym_let, 463), (mozjs_anon_sym_await, 467),
     (mozjs_anon_sym_LPAREN, 657), (mozjs_anon_sym_yield, 469),
     (mozjs_anon_sym_LBRACK, 683), (mozjs_anon_sym_LT, 827),
     (mozjs_anon_sym_DQUOTE, 407), (mozjs_anon_sym_SQUOTE, 409),
     (mozjs_anon_sym_class, 411), (mozjs_anon_sym_async, 476),
     (mozjs_anon_sym_function, 415), (mozjs_anon_sym_new, 478),
     (mozjs_anon_sym_PLUS, 483), (mozjs_anon_sym_DASH, 483),
     (mozjs_anon_sym_SLASH, 665), (mozjs_anon_sym_BANG, 485),
     (mozjs_anon_sym_TILDE, 485), (mozjs_anon_sym_typeof, 483),
     (mozjs_anon_sym_void, 483), (mozjs_anon_sym_delete, 483),
     (mozjs_anon_sym_PLUS_PLUS, 691), (mozjs_anon_sym_DASH_DASH, 691),
     (mozjs_sym_comment, 5), (mozjs_anon_sym_BQUOTE, 669),
     (mozjs_sym_number, 437), (mozjs_sym_private_property_identifier, 490),
     (mozjs_sym_this, 441), (mozjs_sym_super, 441),
     (mozjs_sym_true, 441), (mozjs_sym_false, 441),
     (mozjs_sym_null, 441), (mozjs_sym_undefined, 492),
     (mozjs_anon_sym_AT, 93), (mozjs_anon_sym_static, 463),
     (mozjs_anon_sym_get, 463), (mozjs_anon_sym_set, 463),
     (mozjs_sym_html_comment, 5)]"

definition mozjs_parse_row_323 :: "(TSSymbol \<times> nat) list" where
  "mozjs_parse_row_323 =
    [(mozjs_sym_import, 1340), (mozjs_sym_parenthesized_expression, 499),
     (mozjs_sym_expression, 926), (mozjs_sym_primary_expression, 584),
     (mozjs_sym_yield_expression, 638), (mozjs_sym_object, 645),
     (mozjs_sym_object_pattern, 1766), (mozjs_sym_array, 645),
     (mozjs_sym_array_pattern, 1766), (mozjs_sym_jsx_element, 638),
     (mozjs_sym_jsx_opening_element, 1152), (mozjs_sym_jsx_self_closing_element, 638),
     (mozjs_sym_class, 645), (mozjs_sym_function_expression, 645),
     (mozjs_sym_generator_function, 645), (mozjs_sym_arrow_function, 645),
     (mozjs_sym_call_expression, 645), (mozjs_sym_new_expression, 587),
     (mozjs_sym_await_expression, 638), (mozjs_sym_member_expression, 499),
     (mozjs_sym_subscript_expression, 499), (mozjs_sym_assignment_expression, 638),
     (mozjs_sym__augmented_assignment_lhs, 1144), (mozjs_sym_augmented_assignment_expression,
       638),
     (mozjs_sym__destructuring_pattern, 1766), (mozjs_sym_ternary_expression, 638),
     (mozjs_sym_binary_expression, 638), (mozjs_sym_unary_expression, 638),
     (mozjs_sym_update_expression, 638), (mozjs_sym_string, 645),
     (mozjs_sym_template_string, 645), (mozjs_sym_regex, 645),
     (mozjs_sym_meta_property, 645), (mozjs_sym_decorator, 1112),
     (mozjs_sym_formal_parameters, 1828), (mozjs_aux_sym_export_statement_repeat1, 1395),
     (mozjs_sym_identifier, 461), (mozjs_anon_sym_export, 463),
     (mozjs_anon_sym_LBRACE, 465), (mozjs_anon_sym_import, 390),
     (mozjs_anon_sym_let, 463), (mozjs_anon_sym_await, 467),
     (mozjs_anon_sym_LPAREN, 657), (mozjs_anon_sym_yield, 469),
     (mozjs_anon_sym_LBRACK, 683), (mozjs_anon_sym_LT, 827),
     (mozjs_anon_sym_DQUOTE, 407), (mozjs_anon_sym_SQUOTE, 409),
     (mozjs_anon_sym_class, 411), (mozjs_anon_sym_async, 476),
     (mozjs_anon_sym_function, 415), (mozjs_anon_sym_new, 478),
     (mozjs_anon_sym_PLUS, 483), (mozjs_anon_sym_DASH, 483),
     (mozjs_anon_sym_SLASH, 665), (mozjs_anon_sym_BANG, 485),
     (mozjs_anon_sym_TILDE, 485), (mozjs_anon_sym_typeof, 483),
     (mozjs_anon_sym_void, 483), (mozjs_anon_sym_delete, 483),
     (mozjs_anon_sym_PLUS_PLUS, 691), (mozjs_anon_sym_DASH_DASH, 691),
     (mozjs_sym_comment, 5), (mozjs_anon_sym_BQUOTE, 669),
     (mozjs_sym_number, 437), (mozjs_sym_private_property_identifier, 490),
     (mozjs_sym_this, 441), (mozjs_sym_super, 441),
     (mozjs_sym_true, 441), (mozjs_sym_false, 441),
     (mozjs_sym_null, 441), (mozjs_sym_undefined, 492),
     (mozjs_anon_sym_AT, 93), (mozjs_anon_sym_static, 463),
     (mozjs_anon_sym_get, 463), (mozjs_anon_sym_set, 463),
     (mozjs_sym_html_comment, 5)]"

definition mozjs_parse_row_324 :: "(TSSymbol \<times> nat) list" where
  "mozjs_parse_row_324 =
    [(mozjs_sym_import, 1340), (mozjs_sym_parenthesized_expression, 499),
     (mozjs_sym_expression, 927), (mozjs_sym_primary_expression, 584),
     (mozjs_sym_yield_expression, 638), (mozjs_sym_object, 645),
     (mozjs_sym_object_pattern, 1766), (mozjs_sym_array, 645),
     (mozjs_sym_array_pattern, 1766), (mozjs_sym_jsx_element, 638),
     (mozjs_sym_jsx_opening_element, 1152), (mozjs_sym_jsx_self_closing_element, 638),
     (mozjs_sym_class, 645), (mozjs_sym_function_expression, 645),
     (mozjs_sym_generator_function, 645), (mozjs_sym_arrow_function, 645),
     (mozjs_sym_call_expression, 645), (mozjs_sym_new_expression, 587),
     (mozjs_sym_await_expression, 638), (mozjs_sym_member_expression, 499),
     (mozjs_sym_subscript_expression, 499), (mozjs_sym_assignment_expression, 638),
     (mozjs_sym__augmented_assignment_lhs, 1144), (mozjs_sym_augmented_assignment_expression,
       638),
     (mozjs_sym__destructuring_pattern, 1766), (mozjs_sym_ternary_expression, 638),
     (mozjs_sym_binary_expression, 638), (mozjs_sym_unary_expression, 638),
     (mozjs_sym_update_expression, 638), (mozjs_sym_string, 645),
     (mozjs_sym_template_string, 645), (mozjs_sym_regex, 645),
     (mozjs_sym_meta_property, 645), (mozjs_sym_decorator, 1112),
     (mozjs_sym_formal_parameters, 1828), (mozjs_aux_sym_export_statement_repeat1, 1395),
     (mozjs_sym_identifier, 461), (mozjs_anon_sym_export, 463),
     (mozjs_anon_sym_LBRACE, 465), (mozjs_anon_sym_import, 390),
     (mozjs_anon_sym_let, 463), (mozjs_anon_sym_await, 467),
     (mozjs_anon_sym_LPAREN, 657), (mozjs_anon_sym_yield, 469),
     (mozjs_anon_sym_LBRACK, 683), (mozjs_anon_sym_LT, 827),
     (mozjs_anon_sym_DQUOTE, 407), (mozjs_anon_sym_SQUOTE, 409),
     (mozjs_anon_sym_class, 411), (mozjs_anon_sym_async, 476),
     (mozjs_anon_sym_function, 415), (mozjs_anon_sym_new, 478),
     (mozjs_anon_sym_PLUS, 483), (mozjs_anon_sym_DASH, 483),
     (mozjs_anon_sym_SLASH, 665), (mozjs_anon_sym_BANG, 485),
     (mozjs_anon_sym_TILDE, 485), (mozjs_anon_sym_typeof, 483),
     (mozjs_anon_sym_void, 483), (mozjs_anon_sym_delete, 483),
     (mozjs_anon_sym_PLUS_PLUS, 691), (mozjs_anon_sym_DASH_DASH, 691),
     (mozjs_sym_comment, 5), (mozjs_anon_sym_BQUOTE, 669),
     (mozjs_sym_number, 437), (mozjs_sym_private_property_identifier, 490),
     (mozjs_sym_this, 441), (mozjs_sym_super, 441),
     (mozjs_sym_true, 441), (mozjs_sym_false, 441),
     (mozjs_sym_null, 441), (mozjs_sym_undefined, 492),
     (mozjs_anon_sym_AT, 93), (mozjs_anon_sym_static, 463),
     (mozjs_anon_sym_get, 463), (mozjs_anon_sym_set, 463),
     (mozjs_sym_html_comment, 5)]"

definition mozjs_parse_row_325 :: "(TSSymbol \<times> nat) list" where
  "mozjs_parse_row_325 =
    [(mozjs_sym_import, 1340), (mozjs_sym_parenthesized_expression, 499),
     (mozjs_sym_expression, 928), (mozjs_sym_primary_expression, 584),
     (mozjs_sym_yield_expression, 638), (mozjs_sym_object, 645),
     (mozjs_sym_object_pattern, 1766), (mozjs_sym_array, 645),
     (mozjs_sym_array_pattern, 1766), (mozjs_sym_jsx_element, 638),
     (mozjs_sym_jsx_opening_element, 1152), (mozjs_sym_jsx_self_closing_element, 638),
     (mozjs_sym_class, 645), (mozjs_sym_function_expression, 645),
     (mozjs_sym_generator_function, 645), (mozjs_sym_arrow_function, 645),
     (mozjs_sym_call_expression, 645), (mozjs_sym_new_expression, 587),
     (mozjs_sym_await_expression, 638), (mozjs_sym_member_expression, 499),
     (mozjs_sym_subscript_expression, 499), (mozjs_sym_assignment_expression, 638),
     (mozjs_sym__augmented_assignment_lhs, 1144), (mozjs_sym_augmented_assignment_expression,
       638),
     (mozjs_sym__destructuring_pattern, 1766), (mozjs_sym_ternary_expression, 638),
     (mozjs_sym_binary_expression, 638), (mozjs_sym_unary_expression, 638),
     (mozjs_sym_update_expression, 638), (mozjs_sym_string, 645),
     (mozjs_sym_template_string, 645), (mozjs_sym_regex, 645),
     (mozjs_sym_meta_property, 645), (mozjs_sym_decorator, 1112),
     (mozjs_sym_formal_parameters, 1828), (mozjs_aux_sym_export_statement_repeat1, 1395),
     (mozjs_sym_identifier, 461), (mozjs_anon_sym_export, 463),
     (mozjs_anon_sym_LBRACE, 465), (mozjs_anon_sym_import, 390),
     (mozjs_anon_sym_let, 463), (mozjs_anon_sym_await, 467),
     (mozjs_anon_sym_LPAREN, 657), (mozjs_anon_sym_yield, 469),
     (mozjs_anon_sym_LBRACK, 683), (mozjs_anon_sym_LT, 827),
     (mozjs_anon_sym_DQUOTE, 407), (mozjs_anon_sym_SQUOTE, 409),
     (mozjs_anon_sym_class, 411), (mozjs_anon_sym_async, 476),
     (mozjs_anon_sym_function, 415), (mozjs_anon_sym_new, 478),
     (mozjs_anon_sym_PLUS, 483), (mozjs_anon_sym_DASH, 483),
     (mozjs_anon_sym_SLASH, 665), (mozjs_anon_sym_BANG, 485),
     (mozjs_anon_sym_TILDE, 485), (mozjs_anon_sym_typeof, 483),
     (mozjs_anon_sym_void, 483), (mozjs_anon_sym_delete, 483),
     (mozjs_anon_sym_PLUS_PLUS, 691), (mozjs_anon_sym_DASH_DASH, 691),
     (mozjs_sym_comment, 5), (mozjs_anon_sym_BQUOTE, 669),
     (mozjs_sym_number, 437), (mozjs_sym_private_property_identifier, 490),
     (mozjs_sym_this, 441), (mozjs_sym_super, 441),
     (mozjs_sym_true, 441), (mozjs_sym_false, 441),
     (mozjs_sym_null, 441), (mozjs_sym_undefined, 492),
     (mozjs_anon_sym_AT, 93), (mozjs_anon_sym_static, 463),
     (mozjs_anon_sym_get, 463), (mozjs_anon_sym_set, 463),
     (mozjs_sym_html_comment, 5)]"

definition mozjs_parse_row_326 :: "(TSSymbol \<times> nat) list" where
  "mozjs_parse_row_326 =
    [(mozjs_sym_import, 1340), (mozjs_sym_parenthesized_expression, 499),
     (mozjs_sym_expression, 972), (mozjs_sym_primary_expression, 584),
     (mozjs_sym_yield_expression, 638), (mozjs_sym_object, 645),
     (mozjs_sym_object_pattern, 1766), (mozjs_sym_array, 645),
     (mozjs_sym_array_pattern, 1766), (mozjs_sym_jsx_element, 638),
     (mozjs_sym_jsx_opening_element, 1152), (mozjs_sym_jsx_self_closing_element, 638),
     (mozjs_sym_class, 645), (mozjs_sym_function_expression, 645),
     (mozjs_sym_generator_function, 645), (mozjs_sym_arrow_function, 645),
     (mozjs_sym_call_expression, 645), (mozjs_sym_new_expression, 587),
     (mozjs_sym_await_expression, 638), (mozjs_sym_member_expression, 499),
     (mozjs_sym_subscript_expression, 499), (mozjs_sym_assignment_expression, 638),
     (mozjs_sym__augmented_assignment_lhs, 1144), (mozjs_sym_augmented_assignment_expression,
       638),
     (mozjs_sym__destructuring_pattern, 1766), (mozjs_sym_ternary_expression, 638),
     (mozjs_sym_binary_expression, 638), (mozjs_sym_unary_expression, 638),
     (mozjs_sym_update_expression, 638), (mozjs_sym_string, 645),
     (mozjs_sym_template_string, 645), (mozjs_sym_regex, 645),
     (mozjs_sym_meta_property, 645), (mozjs_sym_decorator, 1112),
     (mozjs_sym_formal_parameters, 1828), (mozjs_aux_sym_export_statement_repeat1, 1395),
     (mozjs_sym_identifier, 461), (mozjs_anon_sym_export, 463),
     (mozjs_anon_sym_LBRACE, 465), (mozjs_anon_sym_import, 390),
     (mozjs_anon_sym_let, 463), (mozjs_anon_sym_await, 467),
     (mozjs_anon_sym_LPAREN, 657), (mozjs_anon_sym_yield, 469),
     (mozjs_anon_sym_LBRACK, 683), (mozjs_anon_sym_LT, 827),
     (mozjs_anon_sym_DQUOTE, 407), (mozjs_anon_sym_SQUOTE, 409),
     (mozjs_anon_sym_class, 411), (mozjs_anon_sym_async, 476),
     (mozjs_anon_sym_function, 415), (mozjs_anon_sym_new, 478),
     (mozjs_anon_sym_PLUS, 483), (mozjs_anon_sym_DASH, 483),
     (mozjs_anon_sym_SLASH, 665), (mozjs_anon_sym_BANG, 485),
     (mozjs_anon_sym_TILDE, 485), (mozjs_anon_sym_typeof, 483),
     (mozjs_anon_sym_void, 483), (mozjs_anon_sym_delete, 483),
     (mozjs_anon_sym_PLUS_PLUS, 691), (mozjs_anon_sym_DASH_DASH, 691),
     (mozjs_sym_comment, 5), (mozjs_anon_sym_BQUOTE, 669),
     (mozjs_sym_number, 437), (mozjs_sym_private_property_identifier, 490),
     (mozjs_sym_this, 441), (mozjs_sym_super, 441),
     (mozjs_sym_true, 441), (mozjs_sym_false, 441),
     (mozjs_sym_null, 441), (mozjs_sym_undefined, 492),
     (mozjs_anon_sym_AT, 93), (mozjs_anon_sym_static, 463),
     (mozjs_anon_sym_get, 463), (mozjs_anon_sym_set, 463),
     (mozjs_sym_html_comment, 5)]"

definition mozjs_parse_row_327 :: "(TSSymbol \<times> nat) list" where
  "mozjs_parse_row_327 =
    [(mozjs_sym_import, 1340), (mozjs_sym_parenthesized_expression, 499),
     (mozjs_sym_expression, 930), (mozjs_sym_primary_expression, 584),
     (mozjs_sym_yield_expression, 638), (mozjs_sym_object, 645),
     (mozjs_sym_object_pattern, 1766), (mozjs_sym_array, 645),
     (mozjs_sym_array_pattern, 1766), (mozjs_sym_jsx_element, 638),
     (mozjs_sym_jsx_opening_element, 1152), (mozjs_sym_jsx_self_closing_element, 638),
     (mozjs_sym_class, 645), (mozjs_sym_function_expression, 645),
     (mozjs_sym_generator_function, 645), (mozjs_sym_arrow_function, 645),
     (mozjs_sym_call_expression, 645), (mozjs_sym_new_expression, 587),
     (mozjs_sym_await_expression, 638), (mozjs_sym_member_expression, 499),
     (mozjs_sym_subscript_expression, 499), (mozjs_sym_assignment_expression, 638),
     (mozjs_sym__augmented_assignment_lhs, 1144), (mozjs_sym_augmented_assignment_expression,
       638),
     (mozjs_sym__destructuring_pattern, 1766), (mozjs_sym_ternary_expression, 638),
     (mozjs_sym_binary_expression, 638), (mozjs_sym_unary_expression, 638),
     (mozjs_sym_update_expression, 638), (mozjs_sym_string, 645),
     (mozjs_sym_template_string, 645), (mozjs_sym_regex, 645),
     (mozjs_sym_meta_property, 645), (mozjs_sym_decorator, 1112),
     (mozjs_sym_formal_parameters, 1828), (mozjs_aux_sym_export_statement_repeat1, 1395),
     (mozjs_sym_identifier, 461), (mozjs_anon_sym_export, 463),
     (mozjs_anon_sym_LBRACE, 465), (mozjs_anon_sym_import, 390),
     (mozjs_anon_sym_let, 463), (mozjs_anon_sym_await, 467),
     (mozjs_anon_sym_LPAREN, 657), (mozjs_anon_sym_yield, 469),
     (mozjs_anon_sym_LBRACK, 683), (mozjs_anon_sym_LT, 827),
     (mozjs_anon_sym_DQUOTE, 407), (mozjs_anon_sym_SQUOTE, 409),
     (mozjs_anon_sym_class, 411), (mozjs_anon_sym_async, 476),
     (mozjs_anon_sym_function, 415), (mozjs_anon_sym_new, 478),
     (mozjs_anon_sym_PLUS, 483), (mozjs_anon_sym_DASH, 483),
     (mozjs_anon_sym_SLASH, 665), (mozjs_anon_sym_BANG, 485),
     (mozjs_anon_sym_TILDE, 485), (mozjs_anon_sym_typeof, 483),
     (mozjs_anon_sym_void, 483), (mozjs_anon_sym_delete, 483),
     (mozjs_anon_sym_PLUS_PLUS, 691), (mozjs_anon_sym_DASH_DASH, 691),
     (mozjs_sym_comment, 5), (mozjs_anon_sym_BQUOTE, 669),
     (mozjs_sym_number, 437), (mozjs_sym_private_property_identifier, 490),
     (mozjs_sym_this, 441), (mozjs_sym_super, 441),
     (mozjs_sym_true, 441), (mozjs_sym_false, 441),
     (mozjs_sym_null, 441), (mozjs_sym_undefined, 492),
     (mozjs_anon_sym_AT, 93), (mozjs_anon_sym_static, 463),
     (mozjs_anon_sym_get, 463), (mozjs_anon_sym_set, 463),
     (mozjs_sym_html_comment, 5)]"

definition mozjs_parse_row_328 :: "(TSSymbol \<times> nat) list" where
  "mozjs_parse_row_328 =
    [(mozjs_sym_import, 1340), (mozjs_sym_parenthesized_expression, 499),
     (mozjs_sym_expression, 931), (mozjs_sym_primary_expression, 584),
     (mozjs_sym_yield_expression, 638), (mozjs_sym_object, 645),
     (mozjs_sym_object_pattern, 1766), (mozjs_sym_array, 645),
     (mozjs_sym_array_pattern, 1766), (mozjs_sym_jsx_element, 638),
     (mozjs_sym_jsx_opening_element, 1152), (mozjs_sym_jsx_self_closing_element, 638),
     (mozjs_sym_class, 645), (mozjs_sym_function_expression, 645),
     (mozjs_sym_generator_function, 645), (mozjs_sym_arrow_function, 645),
     (mozjs_sym_call_expression, 645), (mozjs_sym_new_expression, 587),
     (mozjs_sym_await_expression, 638), (mozjs_sym_member_expression, 499),
     (mozjs_sym_subscript_expression, 499), (mozjs_sym_assignment_expression, 638),
     (mozjs_sym__augmented_assignment_lhs, 1144), (mozjs_sym_augmented_assignment_expression,
       638),
     (mozjs_sym__destructuring_pattern, 1766), (mozjs_sym_ternary_expression, 638),
     (mozjs_sym_binary_expression, 638), (mozjs_sym_unary_expression, 638),
     (mozjs_sym_update_expression, 638), (mozjs_sym_string, 645),
     (mozjs_sym_template_string, 645), (mozjs_sym_regex, 645),
     (mozjs_sym_meta_property, 645), (mozjs_sym_decorator, 1112),
     (mozjs_sym_formal_parameters, 1828), (mozjs_aux_sym_export_statement_repeat1, 1395),
     (mozjs_sym_identifier, 461), (mozjs_anon_sym_export, 463),
     (mozjs_anon_sym_LBRACE, 465), (mozjs_anon_sym_import, 390),
     (mozjs_anon_sym_let, 463), (mozjs_anon_sym_await, 467),
     (mozjs_anon_sym_LPAREN, 657), (mozjs_anon_sym_yield, 469),
     (mozjs_anon_sym_LBRACK, 683), (mozjs_anon_sym_LT, 827),
     (mozjs_anon_sym_DQUOTE, 407), (mozjs_anon_sym_SQUOTE, 409),
     (mozjs_anon_sym_class, 411), (mozjs_anon_sym_async, 476),
     (mozjs_anon_sym_function, 415), (mozjs_anon_sym_new, 478),
     (mozjs_anon_sym_PLUS, 483), (mozjs_anon_sym_DASH, 483),
     (mozjs_anon_sym_SLASH, 665), (mozjs_anon_sym_BANG, 485),
     (mozjs_anon_sym_TILDE, 485), (mozjs_anon_sym_typeof, 483),
     (mozjs_anon_sym_void, 483), (mozjs_anon_sym_delete, 483),
     (mozjs_anon_sym_PLUS_PLUS, 691), (mozjs_anon_sym_DASH_DASH, 691),
     (mozjs_sym_comment, 5), (mozjs_anon_sym_BQUOTE, 669),
     (mozjs_sym_number, 437), (mozjs_sym_private_property_identifier, 490),
     (mozjs_sym_this, 441), (mozjs_sym_super, 441),
     (mozjs_sym_true, 441), (mozjs_sym_false, 441),
     (mozjs_sym_null, 441), (mozjs_sym_undefined, 492),
     (mozjs_anon_sym_AT, 93), (mozjs_anon_sym_static, 463),
     (mozjs_anon_sym_get, 463), (mozjs_anon_sym_set, 463),
     (mozjs_sym_html_comment, 5)]"

definition mozjs_parse_row_329 :: "(TSSymbol \<times> nat) list" where
  "mozjs_parse_row_329 =
    [(mozjs_sym_import, 1340), (mozjs_sym_parenthesized_expression, 499),
     (mozjs_sym_expression, 932), (mozjs_sym_primary_expression, 584),
     (mozjs_sym_yield_expression, 638), (mozjs_sym_object, 645),
     (mozjs_sym_object_pattern, 1766), (mozjs_sym_array, 645),
     (mozjs_sym_array_pattern, 1766), (mozjs_sym_jsx_element, 638),
     (mozjs_sym_jsx_opening_element, 1152), (mozjs_sym_jsx_self_closing_element, 638),
     (mozjs_sym_class, 645), (mozjs_sym_function_expression, 645),
     (mozjs_sym_generator_function, 645), (mozjs_sym_arrow_function, 645),
     (mozjs_sym_call_expression, 645), (mozjs_sym_new_expression, 587),
     (mozjs_sym_await_expression, 638), (mozjs_sym_member_expression, 499),
     (mozjs_sym_subscript_expression, 499), (mozjs_sym_assignment_expression, 638),
     (mozjs_sym__augmented_assignment_lhs, 1144), (mozjs_sym_augmented_assignment_expression,
       638),
     (mozjs_sym__destructuring_pattern, 1766), (mozjs_sym_ternary_expression, 638),
     (mozjs_sym_binary_expression, 638), (mozjs_sym_unary_expression, 638),
     (mozjs_sym_update_expression, 638), (mozjs_sym_string, 645),
     (mozjs_sym_template_string, 645), (mozjs_sym_regex, 645),
     (mozjs_sym_meta_property, 645), (mozjs_sym_decorator, 1112),
     (mozjs_sym_formal_parameters, 1828), (mozjs_aux_sym_export_statement_repeat1, 1395),
     (mozjs_sym_identifier, 461), (mozjs_anon_sym_export, 463),
     (mozjs_anon_sym_LBRACE, 465), (mozjs_anon_sym_import, 390),
     (mozjs_anon_sym_let, 463), (mozjs_anon_sym_await, 467),
     (mozjs_anon_sym_LPAREN, 657), (mozjs_anon_sym_yield, 469),
     (mozjs_anon_sym_LBRACK, 683), (mozjs_anon_sym_LT, 827),
     (mozjs_anon_sym_DQUOTE, 407), (mozjs_anon_sym_SQUOTE, 409),
     (mozjs_anon_sym_class, 411), (mozjs_anon_sym_async, 476),
     (mozjs_anon_sym_function, 415), (mozjs_anon_sym_new, 478),
     (mozjs_anon_sym_PLUS, 483), (mozjs_anon_sym_DASH, 483),
     (mozjs_anon_sym_SLASH, 665), (mozjs_anon_sym_BANG, 485),
     (mozjs_anon_sym_TILDE, 485), (mozjs_anon_sym_typeof, 483),
     (mozjs_anon_sym_void, 483), (mozjs_anon_sym_delete, 483),
     (mozjs_anon_sym_PLUS_PLUS, 691), (mozjs_anon_sym_DASH_DASH, 691),
     (mozjs_sym_comment, 5), (mozjs_anon_sym_BQUOTE, 669),
     (mozjs_sym_number, 437), (mozjs_sym_private_property_identifier, 490),
     (mozjs_sym_this, 441), (mozjs_sym_super, 441),
     (mozjs_sym_true, 441), (mozjs_sym_false, 441),
     (mozjs_sym_null, 441), (mozjs_sym_undefined, 492),
     (mozjs_anon_sym_AT, 93), (mozjs_anon_sym_static, 463),
     (mozjs_anon_sym_get, 463), (mozjs_anon_sym_set, 463),
     (mozjs_sym_html_comment, 5)]"

definition mozjs_parse_row_330 :: "(TSSymbol \<times> nat) list" where
  "mozjs_parse_row_330 =
    [(mozjs_sym_import, 1340), (mozjs_sym_parenthesized_expression, 499),
     (mozjs_sym_expression, 933), (mozjs_sym_primary_expression, 584),
     (mozjs_sym_yield_expression, 638), (mozjs_sym_object, 645),
     (mozjs_sym_object_pattern, 1766), (mozjs_sym_array, 645),
     (mozjs_sym_array_pattern, 1766), (mozjs_sym_jsx_element, 638),
     (mozjs_sym_jsx_opening_element, 1152), (mozjs_sym_jsx_self_closing_element, 638),
     (mozjs_sym_class, 645), (mozjs_sym_function_expression, 645),
     (mozjs_sym_generator_function, 645), (mozjs_sym_arrow_function, 645),
     (mozjs_sym_call_expression, 645), (mozjs_sym_new_expression, 587),
     (mozjs_sym_await_expression, 638), (mozjs_sym_member_expression, 499),
     (mozjs_sym_subscript_expression, 499), (mozjs_sym_assignment_expression, 638),
     (mozjs_sym__augmented_assignment_lhs, 1144), (mozjs_sym_augmented_assignment_expression,
       638),
     (mozjs_sym__destructuring_pattern, 1766), (mozjs_sym_ternary_expression, 638),
     (mozjs_sym_binary_expression, 638), (mozjs_sym_unary_expression, 638),
     (mozjs_sym_update_expression, 638), (mozjs_sym_string, 645),
     (mozjs_sym_template_string, 645), (mozjs_sym_regex, 645),
     (mozjs_sym_meta_property, 645), (mozjs_sym_decorator, 1112),
     (mozjs_sym_formal_parameters, 1828), (mozjs_aux_sym_export_statement_repeat1, 1395),
     (mozjs_sym_identifier, 461), (mozjs_anon_sym_export, 463),
     (mozjs_anon_sym_LBRACE, 465), (mozjs_anon_sym_import, 390),
     (mozjs_anon_sym_let, 463), (mozjs_anon_sym_await, 467),
     (mozjs_anon_sym_LPAREN, 657), (mozjs_anon_sym_yield, 469),
     (mozjs_anon_sym_LBRACK, 683), (mozjs_anon_sym_LT, 827),
     (mozjs_anon_sym_DQUOTE, 407), (mozjs_anon_sym_SQUOTE, 409),
     (mozjs_anon_sym_class, 411), (mozjs_anon_sym_async, 476),
     (mozjs_anon_sym_function, 415), (mozjs_anon_sym_new, 478),
     (mozjs_anon_sym_PLUS, 483), (mozjs_anon_sym_DASH, 483),
     (mozjs_anon_sym_SLASH, 665), (mozjs_anon_sym_BANG, 485),
     (mozjs_anon_sym_TILDE, 485), (mozjs_anon_sym_typeof, 483),
     (mozjs_anon_sym_void, 483), (mozjs_anon_sym_delete, 483),
     (mozjs_anon_sym_PLUS_PLUS, 691), (mozjs_anon_sym_DASH_DASH, 691),
     (mozjs_sym_comment, 5), (mozjs_anon_sym_BQUOTE, 669),
     (mozjs_sym_number, 437), (mozjs_sym_private_property_identifier, 490),
     (mozjs_sym_this, 441), (mozjs_sym_super, 441),
     (mozjs_sym_true, 441), (mozjs_sym_false, 441),
     (mozjs_sym_null, 441), (mozjs_sym_undefined, 492),
     (mozjs_anon_sym_AT, 93), (mozjs_anon_sym_static, 463),
     (mozjs_anon_sym_get, 463), (mozjs_anon_sym_set, 463),
     (mozjs_sym_html_comment, 5)]"

definition mozjs_parse_row_331 :: "(TSSymbol \<times> nat) list" where
  "mozjs_parse_row_331 =
    [(mozjs_sym_import, 1340), (mozjs_sym_parenthesized_expression, 499),
     (mozjs_sym_expression, 934), (mozjs_sym_primary_expression, 584),
     (mozjs_sym_yield_expression, 638), (mozjs_sym_object, 645),
     (mozjs_sym_object_pattern, 1766), (mozjs_sym_array, 645),
     (mozjs_sym_array_pattern, 1766), (mozjs_sym_jsx_element, 638),
     (mozjs_sym_jsx_opening_element, 1152), (mozjs_sym_jsx_self_closing_element, 638),
     (mozjs_sym_class, 645), (mozjs_sym_function_expression, 645),
     (mozjs_sym_generator_function, 645), (mozjs_sym_arrow_function, 645),
     (mozjs_sym_call_expression, 645), (mozjs_sym_new_expression, 587),
     (mozjs_sym_await_expression, 638), (mozjs_sym_member_expression, 499),
     (mozjs_sym_subscript_expression, 499), (mozjs_sym_assignment_expression, 638),
     (mozjs_sym__augmented_assignment_lhs, 1144), (mozjs_sym_augmented_assignment_expression,
       638),
     (mozjs_sym__destructuring_pattern, 1766), (mozjs_sym_ternary_expression, 638),
     (mozjs_sym_binary_expression, 638), (mozjs_sym_unary_expression, 638),
     (mozjs_sym_update_expression, 638), (mozjs_sym_string, 645),
     (mozjs_sym_template_string, 645), (mozjs_sym_regex, 645),
     (mozjs_sym_meta_property, 645), (mozjs_sym_decorator, 1112),
     (mozjs_sym_formal_parameters, 1828), (mozjs_aux_sym_export_statement_repeat1, 1395),
     (mozjs_sym_identifier, 461), (mozjs_anon_sym_export, 463),
     (mozjs_anon_sym_LBRACE, 465), (mozjs_anon_sym_import, 390),
     (mozjs_anon_sym_let, 463), (mozjs_anon_sym_await, 467),
     (mozjs_anon_sym_LPAREN, 657), (mozjs_anon_sym_yield, 469),
     (mozjs_anon_sym_LBRACK, 683), (mozjs_anon_sym_LT, 827),
     (mozjs_anon_sym_DQUOTE, 407), (mozjs_anon_sym_SQUOTE, 409),
     (mozjs_anon_sym_class, 411), (mozjs_anon_sym_async, 476),
     (mozjs_anon_sym_function, 415), (mozjs_anon_sym_new, 478),
     (mozjs_anon_sym_PLUS, 483), (mozjs_anon_sym_DASH, 483),
     (mozjs_anon_sym_SLASH, 665), (mozjs_anon_sym_BANG, 485),
     (mozjs_anon_sym_TILDE, 485), (mozjs_anon_sym_typeof, 483),
     (mozjs_anon_sym_void, 483), (mozjs_anon_sym_delete, 483),
     (mozjs_anon_sym_PLUS_PLUS, 691), (mozjs_anon_sym_DASH_DASH, 691),
     (mozjs_sym_comment, 5), (mozjs_anon_sym_BQUOTE, 669),
     (mozjs_sym_number, 437), (mozjs_sym_private_property_identifier, 490),
     (mozjs_sym_this, 441), (mozjs_sym_super, 441),
     (mozjs_sym_true, 441), (mozjs_sym_false, 441),
     (mozjs_sym_null, 441), (mozjs_sym_undefined, 492),
     (mozjs_anon_sym_AT, 93), (mozjs_anon_sym_static, 463),
     (mozjs_anon_sym_get, 463), (mozjs_anon_sym_set, 463),
     (mozjs_sym_html_comment, 5)]"

definition mozjs_parse_row_332 :: "(TSSymbol \<times> nat) list" where
  "mozjs_parse_row_332 =
    [(mozjs_sym_import, 1340), (mozjs_sym_parenthesized_expression, 499),
     (mozjs_sym_expression, 940), (mozjs_sym_primary_expression, 584),
     (mozjs_sym_yield_expression, 638), (mozjs_sym_object, 645),
     (mozjs_sym_object_pattern, 1766), (mozjs_sym_array, 645),
     (mozjs_sym_array_pattern, 1766), (mozjs_sym_jsx_element, 638),
     (mozjs_sym_jsx_opening_element, 1152), (mozjs_sym_jsx_self_closing_element, 638),
     (mozjs_sym_class, 645), (mozjs_sym_function_expression, 645),
     (mozjs_sym_generator_function, 645), (mozjs_sym_arrow_function, 645),
     (mozjs_sym_call_expression, 645), (mozjs_sym_new_expression, 587),
     (mozjs_sym_await_expression, 638), (mozjs_sym_member_expression, 499),
     (mozjs_sym_subscript_expression, 499), (mozjs_sym_assignment_expression, 638),
     (mozjs_sym__augmented_assignment_lhs, 1144), (mozjs_sym_augmented_assignment_expression,
       638),
     (mozjs_sym__destructuring_pattern, 1766), (mozjs_sym_ternary_expression, 638),
     (mozjs_sym_binary_expression, 638), (mozjs_sym_unary_expression, 638),
     (mozjs_sym_update_expression, 638), (mozjs_sym_string, 645),
     (mozjs_sym_template_string, 645), (mozjs_sym_regex, 645),
     (mozjs_sym_meta_property, 645), (mozjs_sym_decorator, 1112),
     (mozjs_sym_formal_parameters, 1828), (mozjs_aux_sym_export_statement_repeat1, 1395),
     (mozjs_sym_identifier, 461), (mozjs_anon_sym_export, 463),
     (mozjs_anon_sym_LBRACE, 465), (mozjs_anon_sym_import, 390),
     (mozjs_anon_sym_let, 463), (mozjs_anon_sym_await, 467),
     (mozjs_anon_sym_LPAREN, 657), (mozjs_anon_sym_yield, 469),
     (mozjs_anon_sym_LBRACK, 683), (mozjs_anon_sym_LT, 827),
     (mozjs_anon_sym_DQUOTE, 407), (mozjs_anon_sym_SQUOTE, 409),
     (mozjs_anon_sym_class, 411), (mozjs_anon_sym_async, 476),
     (mozjs_anon_sym_function, 415), (mozjs_anon_sym_new, 478),
     (mozjs_anon_sym_PLUS, 483), (mozjs_anon_sym_DASH, 483),
     (mozjs_anon_sym_SLASH, 665), (mozjs_anon_sym_BANG, 485),
     (mozjs_anon_sym_TILDE, 485), (mozjs_anon_sym_typeof, 483),
     (mozjs_anon_sym_void, 483), (mozjs_anon_sym_delete, 483),
     (mozjs_anon_sym_PLUS_PLUS, 691), (mozjs_anon_sym_DASH_DASH, 691),
     (mozjs_sym_comment, 5), (mozjs_anon_sym_BQUOTE, 669),
     (mozjs_sym_number, 437), (mozjs_sym_private_property_identifier, 490),
     (mozjs_sym_this, 441), (mozjs_sym_super, 441),
     (mozjs_sym_true, 441), (mozjs_sym_false, 441),
     (mozjs_sym_null, 441), (mozjs_sym_undefined, 492),
     (mozjs_anon_sym_AT, 93), (mozjs_anon_sym_static, 463),
     (mozjs_anon_sym_get, 463), (mozjs_anon_sym_set, 463),
     (mozjs_sym_html_comment, 5)]"

definition mozjs_parse_row_333 :: "(TSSymbol \<times> nat) list" where
  "mozjs_parse_row_333 =
    [(mozjs_sym_import, 1340), (mozjs_sym_parenthesized_expression, 499),
     (mozjs_sym_expression, 979), (mozjs_sym_primary_expression, 584),
     (mozjs_sym_yield_expression, 638), (mozjs_sym_object, 645),
     (mozjs_sym_object_pattern, 1766), (mozjs_sym_array, 645),
     (mozjs_sym_array_pattern, 1766), (mozjs_sym_jsx_element, 638),
     (mozjs_sym_jsx_opening_element, 1152), (mozjs_sym_jsx_self_closing_element, 638),
     (mozjs_sym_class, 645), (mozjs_sym_function_expression, 645),
     (mozjs_sym_generator_function, 645), (mozjs_sym_arrow_function, 645),
     (mozjs_sym_call_expression, 645), (mozjs_sym_new_expression, 587),
     (mozjs_sym_await_expression, 638), (mozjs_sym_member_expression, 499),
     (mozjs_sym_subscript_expression, 499), (mozjs_sym_assignment_expression, 638),
     (mozjs_sym__augmented_assignment_lhs, 1144), (mozjs_sym_augmented_assignment_expression,
       638),
     (mozjs_sym__destructuring_pattern, 1766), (mozjs_sym_ternary_expression, 638),
     (mozjs_sym_binary_expression, 638), (mozjs_sym_unary_expression, 638),
     (mozjs_sym_update_expression, 638), (mozjs_sym_string, 645),
     (mozjs_sym_template_string, 645), (mozjs_sym_regex, 645),
     (mozjs_sym_meta_property, 645), (mozjs_sym_decorator, 1112),
     (mozjs_sym_formal_parameters, 1828), (mozjs_aux_sym_export_statement_repeat1, 1395),
     (mozjs_sym_identifier, 461), (mozjs_anon_sym_export, 463),
     (mozjs_anon_sym_LBRACE, 465), (mozjs_anon_sym_import, 390),
     (mozjs_anon_sym_let, 463), (mozjs_anon_sym_await, 467),
     (mozjs_anon_sym_LPAREN, 657), (mozjs_anon_sym_yield, 469),
     (mozjs_anon_sym_LBRACK, 683), (mozjs_anon_sym_LT, 827),
     (mozjs_anon_sym_DQUOTE, 407), (mozjs_anon_sym_SQUOTE, 409),
     (mozjs_anon_sym_class, 411), (mozjs_anon_sym_async, 476),
     (mozjs_anon_sym_function, 415), (mozjs_anon_sym_new, 478),
     (mozjs_anon_sym_PLUS, 483), (mozjs_anon_sym_DASH, 483),
     (mozjs_anon_sym_SLASH, 665), (mozjs_anon_sym_BANG, 485),
     (mozjs_anon_sym_TILDE, 485), (mozjs_anon_sym_typeof, 483),
     (mozjs_anon_sym_void, 483), (mozjs_anon_sym_delete, 483),
     (mozjs_anon_sym_PLUS_PLUS, 691), (mozjs_anon_sym_DASH_DASH, 691),
     (mozjs_sym_comment, 5), (mozjs_anon_sym_BQUOTE, 669),
     (mozjs_sym_number, 437), (mozjs_sym_private_property_identifier, 490),
     (mozjs_sym_this, 441), (mozjs_sym_super, 441),
     (mozjs_sym_true, 441), (mozjs_sym_false, 441),
     (mozjs_sym_null, 441), (mozjs_sym_undefined, 492),
     (mozjs_anon_sym_AT, 93), (mozjs_anon_sym_static, 463),
     (mozjs_anon_sym_get, 463), (mozjs_anon_sym_set, 463),
     (mozjs_sym_html_comment, 5)]"

definition mozjs_parse_row_334 :: "(TSSymbol \<times> nat) list" where
  "mozjs_parse_row_334 =
    [(mozjs_sym_import, 1340), (mozjs_sym_parenthesized_expression, 579),
     (mozjs_sym_expression, 591), (mozjs_sym_primary_expression, 584),
     (mozjs_sym_yield_expression, 638), (mozjs_sym_object, 645),
     (mozjs_sym_object_pattern, 1866), (mozjs_sym_array, 645),
     (mozjs_sym_array_pattern, 1866), (mozjs_sym_jsx_element, 638),
     (mozjs_sym_jsx_opening_element, 1152), (mozjs_sym_jsx_self_closing_element, 638),
     (mozjs_sym_class, 645), (mozjs_sym_function_expression, 645),
     (mozjs_sym_generator_function, 645), (mozjs_sym_arrow_function, 645),
     (mozjs_sym_call_expression, 645), (mozjs_sym_new_expression, 587),
     (mozjs_sym_await_expression, 638), (mozjs_sym_member_expression, 579),
     (mozjs_sym_subscript_expression, 579), (mozjs_sym_assignment_expression, 638),
     (mozjs_sym__augmented_assignment_lhs, 1148), (mozjs_sym_augmented_assignment_expression,
       638),
     (mozjs_sym__destructuring_pattern, 1866), (mozjs_sym_ternary_expression, 638),
     (mozjs_sym_binary_expression, 638), (mozjs_sym_unary_expression, 638),
     (mozjs_sym_update_expression, 638), (mozjs_sym_string, 645),
     (mozjs_sym_template_string, 645), (mozjs_sym_regex, 645),
     (mozjs_sym_meta_property, 645), (mozjs_sym_decorator, 1112),
     (mozjs_sym_formal_parameters, 1788), (mozjs_aux_sym_export_statement_repeat1, 1395),
     (mozjs_sym_identifier, 587), (mozjs_anon_sym_export, 589),
     (mozjs_anon_sym_LBRACE, 465), (mozjs_anon_sym_import, 390),
     (mozjs_anon_sym_let, 589), (mozjs_anon_sym_await, 591),
     (mozjs_anon_sym_LPAREN, 657), (mozjs_anon_sym_yield, 593),
     (mozjs_anon_sym_LBRACK, 683), (mozjs_anon_sym_LT, 827),
     (mozjs_anon_sym_DQUOTE, 407), (mozjs_anon_sym_SQUOTE, 409),
     (mozjs_anon_sym_class, 411), (mozjs_anon_sym_async, 597),
     (mozjs_anon_sym_function, 415), (mozjs_anon_sym_new, 601),
     (mozjs_anon_sym_PLUS, 609), (mozjs_anon_sym_DASH, 609),
     (mozjs_anon_sym_SLASH, 685), (mozjs_anon_sym_BANG, 611),
     (mozjs_anon_sym_TILDE, 611), (mozjs_anon_sym_typeof, 609),
     (mozjs_anon_sym_void, 609), (mozjs_anon_sym_delete, 609),
     (mozjs_anon_sym_PLUS_PLUS, 687), (mozjs_anon_sym_DASH_DASH, 687),
     (mozjs_sym_comment, 5), (mozjs_anon_sym_BQUOTE, 669),
     (mozjs_sym_number, 437), (mozjs_sym_private_property_identifier, 616),
     (mozjs_sym_this, 441), (mozjs_sym_super, 441),
     (mozjs_sym_true, 441), (mozjs_sym_false, 441),
     (mozjs_sym_null, 441), (mozjs_sym_undefined, 618),
     (mozjs_anon_sym_AT, 93), (mozjs_anon_sym_static, 589),
     (mozjs_anon_sym_get, 589), (mozjs_anon_sym_set, 589),
     (mozjs_sym_html_comment, 5)]"

definition mozjs_parse_row_335 :: "(TSSymbol \<times> nat) list" where
  "mozjs_parse_row_335 =
    [(mozjs_sym_import, 1340), (mozjs_sym_parenthesized_expression, 579),
     (mozjs_sym_expression, 585), (mozjs_sym_primary_expression, 584),
     (mozjs_sym_yield_expression, 638), (mozjs_sym_object, 645),
     (mozjs_sym_object_pattern, 1866), (mozjs_sym_array, 645),
     (mozjs_sym_array_pattern, 1866), (mozjs_sym_jsx_element, 638),
     (mozjs_sym_jsx_opening_element, 1152), (mozjs_sym_jsx_self_closing_element, 638),
     (mozjs_sym_class, 645), (mozjs_sym_function_expression, 645),
     (mozjs_sym_generator_function, 645), (mozjs_sym_arrow_function, 645),
     (mozjs_sym_call_expression, 645), (mozjs_sym_new_expression, 587),
     (mozjs_sym_await_expression, 638), (mozjs_sym_member_expression, 579),
     (mozjs_sym_subscript_expression, 579), (mozjs_sym_assignment_expression, 638),
     (mozjs_sym__augmented_assignment_lhs, 1148), (mozjs_sym_augmented_assignment_expression,
       638),
     (mozjs_sym__destructuring_pattern, 1866), (mozjs_sym_ternary_expression, 638),
     (mozjs_sym_binary_expression, 638), (mozjs_sym_unary_expression, 638),
     (mozjs_sym_update_expression, 638), (mozjs_sym_string, 645),
     (mozjs_sym_template_string, 645), (mozjs_sym_regex, 645),
     (mozjs_sym_meta_property, 645), (mozjs_sym_decorator, 1112),
     (mozjs_sym_formal_parameters, 1788), (mozjs_aux_sym_export_statement_repeat1, 1395),
     (mozjs_sym_identifier, 587), (mozjs_anon_sym_export, 589),
     (mozjs_anon_sym_LBRACE, 465), (mozjs_anon_sym_import, 390),
     (mozjs_anon_sym_let, 589), (mozjs_anon_sym_await, 591),
     (mozjs_anon_sym_LPAREN, 657), (mozjs_anon_sym_yield, 593),
     (mozjs_anon_sym_LBRACK, 683), (mozjs_anon_sym_LT, 827),
     (mozjs_anon_sym_DQUOTE, 407), (mozjs_anon_sym_SQUOTE, 409),
     (mozjs_anon_sym_class, 411), (mozjs_anon_sym_async, 597),
     (mozjs_anon_sym_function, 415), (mozjs_anon_sym_new, 601),
     (mozjs_anon_sym_PLUS, 609), (mozjs_anon_sym_DASH, 609),
     (mozjs_anon_sym_SLASH, 685), (mozjs_anon_sym_BANG, 611),
     (mozjs_anon_sym_TILDE, 611), (mozjs_anon_sym_typeof, 609),
     (mozjs_anon_sym_void, 609), (mozjs_anon_sym_delete, 609),
     (mozjs_anon_sym_PLUS_PLUS, 687), (mozjs_anon_sym_DASH_DASH, 687),
     (mozjs_sym_comment, 5), (mozjs_anon_sym_BQUOTE, 669),
     (mozjs_sym_number, 437), (mozjs_sym_private_property_identifier, 616),
     (mozjs_sym_this, 441), (mozjs_sym_super, 441),
     (mozjs_sym_true, 441), (mozjs_sym_false, 441),
     (mozjs_sym_null, 441), (mozjs_sym_undefined, 618),
     (mozjs_anon_sym_AT, 93), (mozjs_anon_sym_static, 589),
     (mozjs_anon_sym_get, 589), (mozjs_anon_sym_set, 589),
     (mozjs_sym_html_comment, 5)]"

definition mozjs_parse_row_336 :: "(TSSymbol \<times> nat) list" where
  "mozjs_parse_row_336 =
    [(mozjs_sym_import, 1340), (mozjs_sym_parenthesized_expression, 579),
     (mozjs_sym_expression, 942), (mozjs_sym_primary_expression, 584),
     (mozjs_sym_yield_expression, 638), (mozjs_sym_object, 645),
     (mozjs_sym_object_pattern, 1866), (mozjs_sym_array, 645),
     (mozjs_sym_array_pattern, 1866), (mozjs_sym_jsx_element, 638),
     (mozjs_sym_jsx_opening_element, 1152), (mozjs_sym_jsx_self_closing_element, 638),
     (mozjs_sym_class, 645), (mozjs_sym_function_expression, 645),
     (mozjs_sym_generator_function, 645), (mozjs_sym_arrow_function, 645),
     (mozjs_sym_call_expression, 645), (mozjs_sym_new_expression, 587),
     (mozjs_sym_await_expression, 638), (mozjs_sym_member_expression, 579),
     (mozjs_sym_subscript_expression, 579), (mozjs_sym_assignment_expression, 638),
     (mozjs_sym__augmented_assignment_lhs, 1148), (mozjs_sym_augmented_assignment_expression,
       638),
     (mozjs_sym__destructuring_pattern, 1866), (mozjs_sym_ternary_expression, 638),
     (mozjs_sym_binary_expression, 638), (mozjs_sym_unary_expression, 638),
     (mozjs_sym_update_expression, 638), (mozjs_sym_string, 645),
     (mozjs_sym_template_string, 645), (mozjs_sym_regex, 645),
     (mozjs_sym_meta_property, 645), (mozjs_sym_decorator, 1112),
     (mozjs_sym_formal_parameters, 1788), (mozjs_aux_sym_export_statement_repeat1, 1395),
     (mozjs_sym_identifier, 587), (mozjs_anon_sym_export, 589),
     (mozjs_anon_sym_LBRACE, 465), (mozjs_anon_sym_import, 390),
     (mozjs_anon_sym_let, 589), (mozjs_anon_sym_await, 591),
     (mozjs_anon_sym_LPAREN, 657), (mozjs_anon_sym_yield, 593),
     (mozjs_anon_sym_LBRACK, 683), (mozjs_anon_sym_LT, 827),
     (mozjs_anon_sym_DQUOTE, 407), (mozjs_anon_sym_SQUOTE, 409),
     (mozjs_anon_sym_class, 411), (mozjs_anon_sym_async, 597),
     (mozjs_anon_sym_function, 415), (mozjs_anon_sym_new, 601),
     (mozjs_anon_sym_PLUS, 609), (mozjs_anon_sym_DASH, 609),
     (mozjs_anon_sym_SLASH, 685), (mozjs_anon_sym_BANG, 611),
     (mozjs_anon_sym_TILDE, 611), (mozjs_anon_sym_typeof, 609),
     (mozjs_anon_sym_void, 609), (mozjs_anon_sym_delete, 609),
     (mozjs_anon_sym_PLUS_PLUS, 687), (mozjs_anon_sym_DASH_DASH, 687),
     (mozjs_sym_comment, 5), (mozjs_anon_sym_BQUOTE, 669),
     (mozjs_sym_number, 437), (mozjs_sym_private_property_identifier, 616),
     (mozjs_sym_this, 441), (mozjs_sym_super, 441),
     (mozjs_sym_true, 441), (mozjs_sym_false, 441),
     (mozjs_sym_null, 441), (mozjs_sym_undefined, 618),
     (mozjs_anon_sym_AT, 93), (mozjs_anon_sym_static, 589),
     (mozjs_anon_sym_get, 589), (mozjs_anon_sym_set, 589),
     (mozjs_sym_html_comment, 5)]"

definition mozjs_parse_row_337 :: "(TSSymbol \<times> nat) list" where
  "mozjs_parse_row_337 =
    [(mozjs_sym_import, 1340), (mozjs_sym_parenthesized_expression, 579),
     (mozjs_sym_expression, 944), (mozjs_sym_primary_expression, 584),
     (mozjs_sym_yield_expression, 638), (mozjs_sym_object, 645),
     (mozjs_sym_object_pattern, 1866), (mozjs_sym_array, 645),
     (mozjs_sym_array_pattern, 1866), (mozjs_sym_jsx_element, 638),
     (mozjs_sym_jsx_opening_element, 1152), (mozjs_sym_jsx_self_closing_element, 638),
     (mozjs_sym_class, 645), (mozjs_sym_function_expression, 645),
     (mozjs_sym_generator_function, 645), (mozjs_sym_arrow_function, 645),
     (mozjs_sym_call_expression, 645), (mozjs_sym_new_expression, 587),
     (mozjs_sym_await_expression, 638), (mozjs_sym_member_expression, 579),
     (mozjs_sym_subscript_expression, 579), (mozjs_sym_assignment_expression, 638),
     (mozjs_sym__augmented_assignment_lhs, 1148), (mozjs_sym_augmented_assignment_expression,
       638),
     (mozjs_sym__destructuring_pattern, 1866), (mozjs_sym_ternary_expression, 638),
     (mozjs_sym_binary_expression, 638), (mozjs_sym_unary_expression, 638),
     (mozjs_sym_update_expression, 638), (mozjs_sym_string, 645),
     (mozjs_sym_template_string, 645), (mozjs_sym_regex, 645),
     (mozjs_sym_meta_property, 645), (mozjs_sym_decorator, 1112),
     (mozjs_sym_formal_parameters, 1788), (mozjs_aux_sym_export_statement_repeat1, 1395),
     (mozjs_sym_identifier, 587), (mozjs_anon_sym_export, 589),
     (mozjs_anon_sym_LBRACE, 465), (mozjs_anon_sym_import, 390),
     (mozjs_anon_sym_let, 589), (mozjs_anon_sym_await, 591),
     (mozjs_anon_sym_LPAREN, 657), (mozjs_anon_sym_yield, 593),
     (mozjs_anon_sym_LBRACK, 683), (mozjs_anon_sym_LT, 827),
     (mozjs_anon_sym_DQUOTE, 407), (mozjs_anon_sym_SQUOTE, 409),
     (mozjs_anon_sym_class, 411), (mozjs_anon_sym_async, 597),
     (mozjs_anon_sym_function, 415), (mozjs_anon_sym_new, 601),
     (mozjs_anon_sym_PLUS, 609), (mozjs_anon_sym_DASH, 609),
     (mozjs_anon_sym_SLASH, 685), (mozjs_anon_sym_BANG, 611),
     (mozjs_anon_sym_TILDE, 611), (mozjs_anon_sym_typeof, 609),
     (mozjs_anon_sym_void, 609), (mozjs_anon_sym_delete, 609),
     (mozjs_anon_sym_PLUS_PLUS, 687), (mozjs_anon_sym_DASH_DASH, 687),
     (mozjs_sym_comment, 5), (mozjs_anon_sym_BQUOTE, 669),
     (mozjs_sym_number, 437), (mozjs_sym_private_property_identifier, 616),
     (mozjs_sym_this, 441), (mozjs_sym_super, 441),
     (mozjs_sym_true, 441), (mozjs_sym_false, 441),
     (mozjs_sym_null, 441), (mozjs_sym_undefined, 618),
     (mozjs_anon_sym_AT, 93), (mozjs_anon_sym_static, 589),
     (mozjs_anon_sym_get, 589), (mozjs_anon_sym_set, 589),
     (mozjs_sym_html_comment, 5)]"

definition mozjs_parse_row_338 :: "(TSSymbol \<times> nat) list" where
  "mozjs_parse_row_338 =
    [(mozjs_sym_import, 1340), (mozjs_sym_parenthesized_expression, 579),
     (mozjs_sym_expression, 945), (mozjs_sym_primary_expression, 584),
     (mozjs_sym_yield_expression, 638), (mozjs_sym_object, 645),
     (mozjs_sym_object_pattern, 1866), (mozjs_sym_array, 645),
     (mozjs_sym_array_pattern, 1866), (mozjs_sym_jsx_element, 638),
     (mozjs_sym_jsx_opening_element, 1152), (mozjs_sym_jsx_self_closing_element, 638),
     (mozjs_sym_class, 645), (mozjs_sym_function_expression, 645),
     (mozjs_sym_generator_function, 645), (mozjs_sym_arrow_function, 645),
     (mozjs_sym_call_expression, 645), (mozjs_sym_new_expression, 587),
     (mozjs_sym_await_expression, 638), (mozjs_sym_member_expression, 579),
     (mozjs_sym_subscript_expression, 579), (mozjs_sym_assignment_expression, 638),
     (mozjs_sym__augmented_assignment_lhs, 1148), (mozjs_sym_augmented_assignment_expression,
       638),
     (mozjs_sym__destructuring_pattern, 1866), (mozjs_sym_ternary_expression, 638),
     (mozjs_sym_binary_expression, 638), (mozjs_sym_unary_expression, 638),
     (mozjs_sym_update_expression, 638), (mozjs_sym_string, 645),
     (mozjs_sym_template_string, 645), (mozjs_sym_regex, 645),
     (mozjs_sym_meta_property, 645), (mozjs_sym_decorator, 1112),
     (mozjs_sym_formal_parameters, 1788), (mozjs_aux_sym_export_statement_repeat1, 1395),
     (mozjs_sym_identifier, 587), (mozjs_anon_sym_export, 589),
     (mozjs_anon_sym_LBRACE, 465), (mozjs_anon_sym_import, 390),
     (mozjs_anon_sym_let, 589), (mozjs_anon_sym_await, 591),
     (mozjs_anon_sym_LPAREN, 657), (mozjs_anon_sym_yield, 593),
     (mozjs_anon_sym_LBRACK, 683), (mozjs_anon_sym_LT, 827),
     (mozjs_anon_sym_DQUOTE, 407), (mozjs_anon_sym_SQUOTE, 409),
     (mozjs_anon_sym_class, 411), (mozjs_anon_sym_async, 597),
     (mozjs_anon_sym_function, 415), (mozjs_anon_sym_new, 601),
     (mozjs_anon_sym_PLUS, 609), (mozjs_anon_sym_DASH, 609),
     (mozjs_anon_sym_SLASH, 685), (mozjs_anon_sym_BANG, 611),
     (mozjs_anon_sym_TILDE, 611), (mozjs_anon_sym_typeof, 609),
     (mozjs_anon_sym_void, 609), (mozjs_anon_sym_delete, 609),
     (mozjs_anon_sym_PLUS_PLUS, 687), (mozjs_anon_sym_DASH_DASH, 687),
     (mozjs_sym_comment, 5), (mozjs_anon_sym_BQUOTE, 669),
     (mozjs_sym_number, 437), (mozjs_sym_private_property_identifier, 616),
     (mozjs_sym_this, 441), (mozjs_sym_super, 441),
     (mozjs_sym_true, 441), (mozjs_sym_false, 441),
     (mozjs_sym_null, 441), (mozjs_sym_undefined, 618),
     (mozjs_anon_sym_AT, 93), (mozjs_anon_sym_static, 589),
     (mozjs_anon_sym_get, 589), (mozjs_anon_sym_set, 589),
     (mozjs_sym_html_comment, 5)]"

definition mozjs_parse_row_339 :: "(TSSymbol \<times> nat) list" where
  "mozjs_parse_row_339 =
    [(mozjs_sym_import, 1340), (mozjs_sym_parenthesized_expression, 579),
     (mozjs_sym_expression, 947), (mozjs_sym_primary_expression, 584),
     (mozjs_sym_yield_expression, 638), (mozjs_sym_object, 645),
     (mozjs_sym_object_pattern, 1866), (mozjs_sym_array, 645),
     (mozjs_sym_array_pattern, 1866), (mozjs_sym_jsx_element, 638),
     (mozjs_sym_jsx_opening_element, 1152), (mozjs_sym_jsx_self_closing_element, 638),
     (mozjs_sym_class, 645), (mozjs_sym_function_expression, 645),
     (mozjs_sym_generator_function, 645), (mozjs_sym_arrow_function, 645),
     (mozjs_sym_call_expression, 645), (mozjs_sym_new_expression, 587),
     (mozjs_sym_await_expression, 638), (mozjs_sym_member_expression, 579),
     (mozjs_sym_subscript_expression, 579), (mozjs_sym_assignment_expression, 638),
     (mozjs_sym__augmented_assignment_lhs, 1148), (mozjs_sym_augmented_assignment_expression,
       638),
     (mozjs_sym__destructuring_pattern, 1866), (mozjs_sym_ternary_expression, 638),
     (mozjs_sym_binary_expression, 638), (mozjs_sym_unary_expression, 638),
     (mozjs_sym_update_expression, 638), (mozjs_sym_string, 645),
     (mozjs_sym_template_string, 645), (mozjs_sym_regex, 645),
     (mozjs_sym_meta_property, 645), (mozjs_sym_decorator, 1112),
     (mozjs_sym_formal_parameters, 1788), (mozjs_aux_sym_export_statement_repeat1, 1395),
     (mozjs_sym_identifier, 587), (mozjs_anon_sym_export, 589),
     (mozjs_anon_sym_LBRACE, 465), (mozjs_anon_sym_import, 390),
     (mozjs_anon_sym_let, 589), (mozjs_anon_sym_await, 591),
     (mozjs_anon_sym_LPAREN, 657), (mozjs_anon_sym_yield, 593),
     (mozjs_anon_sym_LBRACK, 683), (mozjs_anon_sym_LT, 827),
     (mozjs_anon_sym_DQUOTE, 407), (mozjs_anon_sym_SQUOTE, 409),
     (mozjs_anon_sym_class, 411), (mozjs_anon_sym_async, 597),
     (mozjs_anon_sym_function, 415), (mozjs_anon_sym_new, 601),
     (mozjs_anon_sym_PLUS, 609), (mozjs_anon_sym_DASH, 609),
     (mozjs_anon_sym_SLASH, 685), (mozjs_anon_sym_BANG, 611),
     (mozjs_anon_sym_TILDE, 611), (mozjs_anon_sym_typeof, 609),
     (mozjs_anon_sym_void, 609), (mozjs_anon_sym_delete, 609),
     (mozjs_anon_sym_PLUS_PLUS, 687), (mozjs_anon_sym_DASH_DASH, 687),
     (mozjs_sym_comment, 5), (mozjs_anon_sym_BQUOTE, 669),
     (mozjs_sym_number, 437), (mozjs_sym_private_property_identifier, 616),
     (mozjs_sym_this, 441), (mozjs_sym_super, 441),
     (mozjs_sym_true, 441), (mozjs_sym_false, 441),
     (mozjs_sym_null, 441), (mozjs_sym_undefined, 618),
     (mozjs_anon_sym_AT, 93), (mozjs_anon_sym_static, 589),
     (mozjs_anon_sym_get, 589), (mozjs_anon_sym_set, 589),
     (mozjs_sym_html_comment, 5)]"

definition mozjs_parse_row_340 :: "(TSSymbol \<times> nat) list" where
  "mozjs_parse_row_340 =
    [(mozjs_sym_import, 1340), (mozjs_sym_parenthesized_expression, 579),
     (mozjs_sym_expression, 948), (mozjs_sym_primary_expression, 584),
     (mozjs_sym_yield_expression, 638), (mozjs_sym_object, 645),
     (mozjs_sym_object_pattern, 1866), (mozjs_sym_array, 645),
     (mozjs_sym_array_pattern, 1866), (mozjs_sym_jsx_element, 638),
     (mozjs_sym_jsx_opening_element, 1152), (mozjs_sym_jsx_self_closing_element, 638),
     (mozjs_sym_class, 645), (mozjs_sym_function_expression, 645),
     (mozjs_sym_generator_function, 645), (mozjs_sym_arrow_function, 645),
     (mozjs_sym_call_expression, 645), (mozjs_sym_new_expression, 587),
     (mozjs_sym_await_expression, 638), (mozjs_sym_member_expression, 579),
     (mozjs_sym_subscript_expression, 579), (mozjs_sym_assignment_expression, 638),
     (mozjs_sym__augmented_assignment_lhs, 1148), (mozjs_sym_augmented_assignment_expression,
       638),
     (mozjs_sym__destructuring_pattern, 1866), (mozjs_sym_ternary_expression, 638),
     (mozjs_sym_binary_expression, 638), (mozjs_sym_unary_expression, 638),
     (mozjs_sym_update_expression, 638), (mozjs_sym_string, 645),
     (mozjs_sym_template_string, 645), (mozjs_sym_regex, 645),
     (mozjs_sym_meta_property, 645), (mozjs_sym_decorator, 1112),
     (mozjs_sym_formal_parameters, 1788), (mozjs_aux_sym_export_statement_repeat1, 1395),
     (mozjs_sym_identifier, 587), (mozjs_anon_sym_export, 589),
     (mozjs_anon_sym_LBRACE, 465), (mozjs_anon_sym_import, 390),
     (mozjs_anon_sym_let, 589), (mozjs_anon_sym_await, 591),
     (mozjs_anon_sym_LPAREN, 657), (mozjs_anon_sym_yield, 593),
     (mozjs_anon_sym_LBRACK, 683), (mozjs_anon_sym_LT, 827),
     (mozjs_anon_sym_DQUOTE, 407), (mozjs_anon_sym_SQUOTE, 409),
     (mozjs_anon_sym_class, 411), (mozjs_anon_sym_async, 597),
     (mozjs_anon_sym_function, 415), (mozjs_anon_sym_new, 601),
     (mozjs_anon_sym_PLUS, 609), (mozjs_anon_sym_DASH, 609),
     (mozjs_anon_sym_SLASH, 685), (mozjs_anon_sym_BANG, 611),
     (mozjs_anon_sym_TILDE, 611), (mozjs_anon_sym_typeof, 609),
     (mozjs_anon_sym_void, 609), (mozjs_anon_sym_delete, 609),
     (mozjs_anon_sym_PLUS_PLUS, 687), (mozjs_anon_sym_DASH_DASH, 687),
     (mozjs_sym_comment, 5), (mozjs_anon_sym_BQUOTE, 669),
     (mozjs_sym_number, 437), (mozjs_sym_private_property_identifier, 616),
     (mozjs_sym_this, 441), (mozjs_sym_super, 441),
     (mozjs_sym_true, 441), (mozjs_sym_false, 441),
     (mozjs_sym_null, 441), (mozjs_sym_undefined, 618),
     (mozjs_anon_sym_AT, 93), (mozjs_anon_sym_static, 589),
     (mozjs_anon_sym_get, 589), (mozjs_anon_sym_set, 589),
     (mozjs_sym_html_comment, 5)]"

definition mozjs_parse_row_341 :: "(TSSymbol \<times> nat) list" where
  "mozjs_parse_row_341 =
    [(mozjs_sym_import, 1340), (mozjs_sym_parenthesized_expression, 579),
     (mozjs_sym_expression, 949), (mozjs_sym_primary_expression, 584),
     (mozjs_sym_yield_expression, 638), (mozjs_sym_object, 645),
     (mozjs_sym_object_pattern, 1866), (mozjs_sym_array, 645),
     (mozjs_sym_array_pattern, 1866), (mozjs_sym_jsx_element, 638),
     (mozjs_sym_jsx_opening_element, 1152), (mozjs_sym_jsx_self_closing_element, 638),
     (mozjs_sym_class, 645), (mozjs_sym_function_expression, 645),
     (mozjs_sym_generator_function, 645), (mozjs_sym_arrow_function, 645),
     (mozjs_sym_call_expression, 645), (mozjs_sym_new_expression, 587),
     (mozjs_sym_await_expression, 638), (mozjs_sym_member_expression, 579),
     (mozjs_sym_subscript_expression, 579), (mozjs_sym_assignment_expression, 638),
     (mozjs_sym__augmented_assignment_lhs, 1148), (mozjs_sym_augmented_assignment_expression,
       638),
     (mozjs_sym__destructuring_pattern, 1866), (mozjs_sym_ternary_expression, 638),
     (mozjs_sym_binary_expression, 638), (mozjs_sym_unary_expression, 638),
     (mozjs_sym_update_expression, 638), (mozjs_sym_string, 645),
     (mozjs_sym_template_string, 645), (mozjs_sym_regex, 645),
     (mozjs_sym_meta_property, 645), (mozjs_sym_decorator, 1112),
     (mozjs_sym_formal_parameters, 1788), (mozjs_aux_sym_export_statement_repeat1, 1395),
     (mozjs_sym_identifier, 587), (mozjs_anon_sym_export, 589),
     (mozjs_anon_sym_LBRACE, 465), (mozjs_anon_sym_import, 390),
     (mozjs_anon_sym_let, 589), (mozjs_anon_sym_await, 591),
     (mozjs_anon_sym_LPAREN, 657), (mozjs_anon_sym_yield, 593),
     (mozjs_anon_sym_LBRACK, 683), (mozjs_anon_sym_LT, 827),
     (mozjs_anon_sym_DQUOTE, 407), (mozjs_anon_sym_SQUOTE, 409),
     (mozjs_anon_sym_class, 411), (mozjs_anon_sym_async, 597),
     (mozjs_anon_sym_function, 415), (mozjs_anon_sym_new, 601),
     (mozjs_anon_sym_PLUS, 609), (mozjs_anon_sym_DASH, 609),
     (mozjs_anon_sym_SLASH, 685), (mozjs_anon_sym_BANG, 611),
     (mozjs_anon_sym_TILDE, 611), (mozjs_anon_sym_typeof, 609),
     (mozjs_anon_sym_void, 609), (mozjs_anon_sym_delete, 609),
     (mozjs_anon_sym_PLUS_PLUS, 687), (mozjs_anon_sym_DASH_DASH, 687),
     (mozjs_sym_comment, 5), (mozjs_anon_sym_BQUOTE, 669),
     (mozjs_sym_number, 437), (mozjs_sym_private_property_identifier, 616),
     (mozjs_sym_this, 441), (mozjs_sym_super, 441),
     (mozjs_sym_true, 441), (mozjs_sym_false, 441),
     (mozjs_sym_null, 441), (mozjs_sym_undefined, 618),
     (mozjs_anon_sym_AT, 93), (mozjs_anon_sym_static, 589),
     (mozjs_anon_sym_get, 589), (mozjs_anon_sym_set, 589),
     (mozjs_sym_html_comment, 5)]"

definition mozjs_parse_row_342 :: "(TSSymbol \<times> nat) list" where
  "mozjs_parse_row_342 =
    [(mozjs_sym_import, 1340), (mozjs_sym_parenthesized_expression, 579),
     (mozjs_sym_expression, 950), (mozjs_sym_primary_expression, 584),
     (mozjs_sym_yield_expression, 638), (mozjs_sym_object, 645),
     (mozjs_sym_object_pattern, 1866), (mozjs_sym_array, 645),
     (mozjs_sym_array_pattern, 1866), (mozjs_sym_jsx_element, 638),
     (mozjs_sym_jsx_opening_element, 1152), (mozjs_sym_jsx_self_closing_element, 638),
     (mozjs_sym_class, 645), (mozjs_sym_function_expression, 645),
     (mozjs_sym_generator_function, 645), (mozjs_sym_arrow_function, 645),
     (mozjs_sym_call_expression, 645), (mozjs_sym_new_expression, 587),
     (mozjs_sym_await_expression, 638), (mozjs_sym_member_expression, 579),
     (mozjs_sym_subscript_expression, 579), (mozjs_sym_assignment_expression, 638),
     (mozjs_sym__augmented_assignment_lhs, 1148), (mozjs_sym_augmented_assignment_expression,
       638),
     (mozjs_sym__destructuring_pattern, 1866), (mozjs_sym_ternary_expression, 638),
     (mozjs_sym_binary_expression, 638), (mozjs_sym_unary_expression, 638),
     (mozjs_sym_update_expression, 638), (mozjs_sym_string, 645),
     (mozjs_sym_template_string, 645), (mozjs_sym_regex, 645),
     (mozjs_sym_meta_property, 645), (mozjs_sym_decorator, 1112),
     (mozjs_sym_formal_parameters, 1788), (mozjs_aux_sym_export_statement_repeat1, 1395),
     (mozjs_sym_identifier, 587), (mozjs_anon_sym_export, 589),
     (mozjs_anon_sym_LBRACE, 465), (mozjs_anon_sym_import, 390),
     (mozjs_anon_sym_let, 589), (mozjs_anon_sym_await, 591),
     (mozjs_anon_sym_LPAREN, 657), (mozjs_anon_sym_yield, 593),
     (mozjs_anon_sym_LBRACK, 683), (mozjs_anon_sym_LT, 827),
     (mozjs_anon_sym_DQUOTE, 407), (mozjs_anon_sym_SQUOTE, 409),
     (mozjs_anon_sym_class, 411), (mozjs_anon_sym_async, 597),
     (mozjs_anon_sym_function, 415), (mozjs_anon_sym_new, 601),
     (mozjs_anon_sym_PLUS, 609), (mozjs_anon_sym_DASH, 609),
     (mozjs_anon_sym_SLASH, 685), (mozjs_anon_sym_BANG, 611),
     (mozjs_anon_sym_TILDE, 611), (mozjs_anon_sym_typeof, 609),
     (mozjs_anon_sym_void, 609), (mozjs_anon_sym_delete, 609),
     (mozjs_anon_sym_PLUS_PLUS, 687), (mozjs_anon_sym_DASH_DASH, 687),
     (mozjs_sym_comment, 5), (mozjs_anon_sym_BQUOTE, 669),
     (mozjs_sym_number, 437), (mozjs_sym_private_property_identifier, 616),
     (mozjs_sym_this, 441), (mozjs_sym_super, 441),
     (mozjs_sym_true, 441), (mozjs_sym_false, 441),
     (mozjs_sym_null, 441), (mozjs_sym_undefined, 618),
     (mozjs_anon_sym_AT, 93), (mozjs_anon_sym_static, 589),
     (mozjs_anon_sym_get, 589), (mozjs_anon_sym_set, 589),
     (mozjs_sym_html_comment, 5)]"

definition mozjs_parse_row_343 :: "(TSSymbol \<times> nat) list" where
  "mozjs_parse_row_343 =
    [(mozjs_sym_import, 1340), (mozjs_sym_parenthesized_expression, 579),
     (mozjs_sym_expression, 951), (mozjs_sym_primary_expression, 584),
     (mozjs_sym_yield_expression, 638), (mozjs_sym_object, 645),
     (mozjs_sym_object_pattern, 1866), (mozjs_sym_array, 645),
     (mozjs_sym_array_pattern, 1866), (mozjs_sym_jsx_element, 638),
     (mozjs_sym_jsx_opening_element, 1152), (mozjs_sym_jsx_self_closing_element, 638),
     (mozjs_sym_class, 645), (mozjs_sym_function_expression, 645),
     (mozjs_sym_generator_function, 645), (mozjs_sym_arrow_function, 645),
     (mozjs_sym_call_expression, 645), (mozjs_sym_new_expression, 587),
     (mozjs_sym_await_expression, 638), (mozjs_sym_member_expression, 579),
     (mozjs_sym_subscript_expression, 579), (mozjs_sym_assignment_expression, 638),
     (mozjs_sym__augmented_assignment_lhs, 1148), (mozjs_sym_augmented_assignment_expression,
       638),
     (mozjs_sym__destructuring_pattern, 1866), (mozjs_sym_ternary_expression, 638),
     (mozjs_sym_binary_expression, 638), (mozjs_sym_unary_expression, 638),
     (mozjs_sym_update_expression, 638), (mozjs_sym_string, 645),
     (mozjs_sym_template_string, 645), (mozjs_sym_regex, 645),
     (mozjs_sym_meta_property, 645), (mozjs_sym_decorator, 1112),
     (mozjs_sym_formal_parameters, 1788), (mozjs_aux_sym_export_statement_repeat1, 1395),
     (mozjs_sym_identifier, 587), (mozjs_anon_sym_export, 589),
     (mozjs_anon_sym_LBRACE, 465), (mozjs_anon_sym_import, 390),
     (mozjs_anon_sym_let, 589), (mozjs_anon_sym_await, 591),
     (mozjs_anon_sym_LPAREN, 657), (mozjs_anon_sym_yield, 593),
     (mozjs_anon_sym_LBRACK, 683), (mozjs_anon_sym_LT, 827),
     (mozjs_anon_sym_DQUOTE, 407), (mozjs_anon_sym_SQUOTE, 409),
     (mozjs_anon_sym_class, 411), (mozjs_anon_sym_async, 597),
     (mozjs_anon_sym_function, 415), (mozjs_anon_sym_new, 601),
     (mozjs_anon_sym_PLUS, 609), (mozjs_anon_sym_DASH, 609),
     (mozjs_anon_sym_SLASH, 685), (mozjs_anon_sym_BANG, 611),
     (mozjs_anon_sym_TILDE, 611), (mozjs_anon_sym_typeof, 609),
     (mozjs_anon_sym_void, 609), (mozjs_anon_sym_delete, 609),
     (mozjs_anon_sym_PLUS_PLUS, 687), (mozjs_anon_sym_DASH_DASH, 687),
     (mozjs_sym_comment, 5), (mozjs_anon_sym_BQUOTE, 669),
     (mozjs_sym_number, 437), (mozjs_sym_private_property_identifier, 616),
     (mozjs_sym_this, 441), (mozjs_sym_super, 441),
     (mozjs_sym_true, 441), (mozjs_sym_false, 441),
     (mozjs_sym_null, 441), (mozjs_sym_undefined, 618),
     (mozjs_anon_sym_AT, 93), (mozjs_anon_sym_static, 589),
     (mozjs_anon_sym_get, 589), (mozjs_anon_sym_set, 589),
     (mozjs_sym_html_comment, 5)]"

definition mozjs_parse_row_344 :: "(TSSymbol \<times> nat) list" where
  "mozjs_parse_row_344 =
    [(mozjs_sym_import, 1340), (mozjs_sym_parenthesized_expression, 579),
     (mozjs_sym_expression, 952), (mozjs_sym_primary_expression, 584),
     (mozjs_sym_yield_expression, 638), (mozjs_sym_object, 645),
     (mozjs_sym_object_pattern, 1866), (mozjs_sym_array, 645),
     (mozjs_sym_array_pattern, 1866), (mozjs_sym_jsx_element, 638),
     (mozjs_sym_jsx_opening_element, 1152), (mozjs_sym_jsx_self_closing_element, 638),
     (mozjs_sym_class, 645), (mozjs_sym_function_expression, 645),
     (mozjs_sym_generator_function, 645), (mozjs_sym_arrow_function, 645),
     (mozjs_sym_call_expression, 645), (mozjs_sym_new_expression, 587),
     (mozjs_sym_await_expression, 638), (mozjs_sym_member_expression, 579),
     (mozjs_sym_subscript_expression, 579), (mozjs_sym_assignment_expression, 638),
     (mozjs_sym__augmented_assignment_lhs, 1148), (mozjs_sym_augmented_assignment_expression,
       638),
     (mozjs_sym__destructuring_pattern, 1866), (mozjs_sym_ternary_expression, 638),
     (mozjs_sym_binary_expression, 638), (mozjs_sym_unary_expression, 638),
     (mozjs_sym_update_expression, 638), (mozjs_sym_string, 645),
     (mozjs_sym_template_string, 645), (mozjs_sym_regex, 645),
     (mozjs_sym_meta_property, 645), (mozjs_sym_decorator, 1112),
     (mozjs_sym_formal_parameters, 1788), (mozjs_aux_sym_export_statement_repeat1, 1395),
     (mozjs_sym_identifier, 587), (mozjs_anon_sym_export, 589),
     (mozjs_anon_sym_LBRACE, 465), (mozjs_anon_sym_import, 390),
     (mozjs_anon_sym_let, 589), (mozjs_anon_sym_await, 591),
     (mozjs_anon_sym_LPAREN, 657), (mozjs_anon_sym_yield, 593),
     (mozjs_anon_sym_LBRACK, 683), (mozjs_anon_sym_LT, 827),
     (mozjs_anon_sym_DQUOTE, 407), (mozjs_anon_sym_SQUOTE, 409),
     (mozjs_anon_sym_class, 411), (mozjs_anon_sym_async, 597),
     (mozjs_anon_sym_function, 415), (mozjs_anon_sym_new, 601),
     (mozjs_anon_sym_PLUS, 609), (mozjs_anon_sym_DASH, 609),
     (mozjs_anon_sym_SLASH, 685), (mozjs_anon_sym_BANG, 611),
     (mozjs_anon_sym_TILDE, 611), (mozjs_anon_sym_typeof, 609),
     (mozjs_anon_sym_void, 609), (mozjs_anon_sym_delete, 609),
     (mozjs_anon_sym_PLUS_PLUS, 687), (mozjs_anon_sym_DASH_DASH, 687),
     (mozjs_sym_comment, 5), (mozjs_anon_sym_BQUOTE, 669),
     (mozjs_sym_number, 437), (mozjs_sym_private_property_identifier, 616),
     (mozjs_sym_this, 441), (mozjs_sym_super, 441),
     (mozjs_sym_true, 441), (mozjs_sym_false, 441),
     (mozjs_sym_null, 441), (mozjs_sym_undefined, 618),
     (mozjs_anon_sym_AT, 93), (mozjs_anon_sym_static, 589),
     (mozjs_anon_sym_get, 589), (mozjs_anon_sym_set, 589),
     (mozjs_sym_html_comment, 5)]"

definition mozjs_parse_row_345 :: "(TSSymbol \<times> nat) list" where
  "mozjs_parse_row_345 =
    [(mozjs_sym_import, 1340), (mozjs_sym_parenthesized_expression, 579),
     (mozjs_sym_expression, 953), (mozjs_sym_primary_expression, 584),
     (mozjs_sym_yield_expression, 638), (mozjs_sym_object, 645),
     (mozjs_sym_object_pattern, 1866), (mozjs_sym_array, 645),
     (mozjs_sym_array_pattern, 1866), (mozjs_sym_jsx_element, 638),
     (mozjs_sym_jsx_opening_element, 1152), (mozjs_sym_jsx_self_closing_element, 638),
     (mozjs_sym_class, 645), (mozjs_sym_function_expression, 645),
     (mozjs_sym_generator_function, 645), (mozjs_sym_arrow_function, 645),
     (mozjs_sym_call_expression, 645), (mozjs_sym_new_expression, 587),
     (mozjs_sym_await_expression, 638), (mozjs_sym_member_expression, 579),
     (mozjs_sym_subscript_expression, 579), (mozjs_sym_assignment_expression, 638),
     (mozjs_sym__augmented_assignment_lhs, 1148), (mozjs_sym_augmented_assignment_expression,
       638),
     (mozjs_sym__destructuring_pattern, 1866), (mozjs_sym_ternary_expression, 638),
     (mozjs_sym_binary_expression, 638), (mozjs_sym_unary_expression, 638),
     (mozjs_sym_update_expression, 638), (mozjs_sym_string, 645),
     (mozjs_sym_template_string, 645), (mozjs_sym_regex, 645),
     (mozjs_sym_meta_property, 645), (mozjs_sym_decorator, 1112),
     (mozjs_sym_formal_parameters, 1788), (mozjs_aux_sym_export_statement_repeat1, 1395),
     (mozjs_sym_identifier, 587), (mozjs_anon_sym_export, 589),
     (mozjs_anon_sym_LBRACE, 465), (mozjs_anon_sym_import, 390),
     (mozjs_anon_sym_let, 589), (mozjs_anon_sym_await, 591),
     (mozjs_anon_sym_LPAREN, 657), (mozjs_anon_sym_yield, 593),
     (mozjs_anon_sym_LBRACK, 683), (mozjs_anon_sym_LT, 827),
     (mozjs_anon_sym_DQUOTE, 407), (mozjs_anon_sym_SQUOTE, 409),
     (mozjs_anon_sym_class, 411), (mozjs_anon_sym_async, 597),
     (mozjs_anon_sym_function, 415), (mozjs_anon_sym_new, 601),
     (mozjs_anon_sym_PLUS, 609), (mozjs_anon_sym_DASH, 609),
     (mozjs_anon_sym_SLASH, 685), (mozjs_anon_sym_BANG, 611),
     (mozjs_anon_sym_TILDE, 611), (mozjs_anon_sym_typeof, 609),
     (mozjs_anon_sym_void, 609), (mozjs_anon_sym_delete, 609),
     (mozjs_anon_sym_PLUS_PLUS, 687), (mozjs_anon_sym_DASH_DASH, 687),
     (mozjs_sym_comment, 5), (mozjs_anon_sym_BQUOTE, 669),
     (mozjs_sym_number, 437), (mozjs_sym_private_property_identifier, 616),
     (mozjs_sym_this, 441), (mozjs_sym_super, 441),
     (mozjs_sym_true, 441), (mozjs_sym_false, 441),
     (mozjs_sym_null, 441), (mozjs_sym_undefined, 618),
     (mozjs_anon_sym_AT, 93), (mozjs_anon_sym_static, 589),
     (mozjs_anon_sym_get, 589), (mozjs_anon_sym_set, 589),
     (mozjs_sym_html_comment, 5)]"

definition mozjs_parse_row_346 :: "(TSSymbol \<times> nat) list" where
  "mozjs_parse_row_346 =
    [(mozjs_sym_import, 1340), (mozjs_sym_parenthesized_expression, 579),
     (mozjs_sym_expression, 954), (mozjs_sym_primary_expression, 584),
     (mozjs_sym_yield_expression, 638), (mozjs_sym_object, 645),
     (mozjs_sym_object_pattern, 1866), (mozjs_sym_array, 645),
     (mozjs_sym_array_pattern, 1866), (mozjs_sym_jsx_element, 638),
     (mozjs_sym_jsx_opening_element, 1152), (mozjs_sym_jsx_self_closing_element, 638),
     (mozjs_sym_class, 645), (mozjs_sym_function_expression, 645),
     (mozjs_sym_generator_function, 645), (mozjs_sym_arrow_function, 645),
     (mozjs_sym_call_expression, 645), (mozjs_sym_new_expression, 587),
     (mozjs_sym_await_expression, 638), (mozjs_sym_member_expression, 579),
     (mozjs_sym_subscript_expression, 579), (mozjs_sym_assignment_expression, 638),
     (mozjs_sym__augmented_assignment_lhs, 1148), (mozjs_sym_augmented_assignment_expression,
       638),
     (mozjs_sym__destructuring_pattern, 1866), (mozjs_sym_ternary_expression, 638),
     (mozjs_sym_binary_expression, 638), (mozjs_sym_unary_expression, 638),
     (mozjs_sym_update_expression, 638), (mozjs_sym_string, 645),
     (mozjs_sym_template_string, 645), (mozjs_sym_regex, 645),
     (mozjs_sym_meta_property, 645), (mozjs_sym_decorator, 1112),
     (mozjs_sym_formal_parameters, 1788), (mozjs_aux_sym_export_statement_repeat1, 1395),
     (mozjs_sym_identifier, 587), (mozjs_anon_sym_export, 589),
     (mozjs_anon_sym_LBRACE, 465), (mozjs_anon_sym_import, 390),
     (mozjs_anon_sym_let, 589), (mozjs_anon_sym_await, 591),
     (mozjs_anon_sym_LPAREN, 657), (mozjs_anon_sym_yield, 593),
     (mozjs_anon_sym_LBRACK, 683), (mozjs_anon_sym_LT, 827),
     (mozjs_anon_sym_DQUOTE, 407), (mozjs_anon_sym_SQUOTE, 409),
     (mozjs_anon_sym_class, 411), (mozjs_anon_sym_async, 597),
     (mozjs_anon_sym_function, 415), (mozjs_anon_sym_new, 601),
     (mozjs_anon_sym_PLUS, 609), (mozjs_anon_sym_DASH, 609),
     (mozjs_anon_sym_SLASH, 685), (mozjs_anon_sym_BANG, 611),
     (mozjs_anon_sym_TILDE, 611), (mozjs_anon_sym_typeof, 609),
     (mozjs_anon_sym_void, 609), (mozjs_anon_sym_delete, 609),
     (mozjs_anon_sym_PLUS_PLUS, 687), (mozjs_anon_sym_DASH_DASH, 687),
     (mozjs_sym_comment, 5), (mozjs_anon_sym_BQUOTE, 669),
     (mozjs_sym_number, 437), (mozjs_sym_private_property_identifier, 616),
     (mozjs_sym_this, 441), (mozjs_sym_super, 441),
     (mozjs_sym_true, 441), (mozjs_sym_false, 441),
     (mozjs_sym_null, 441), (mozjs_sym_undefined, 618),
     (mozjs_anon_sym_AT, 93), (mozjs_anon_sym_static, 589),
     (mozjs_anon_sym_get, 589), (mozjs_anon_sym_set, 589),
     (mozjs_sym_html_comment, 5)]"

definition mozjs_parse_row_347 :: "(TSSymbol \<times> nat) list" where
  "mozjs_parse_row_347 =
    [(mozjs_sym_import, 1340), (mozjs_sym_parenthesized_expression, 579),
     (mozjs_sym_expression, 955), (mozjs_sym_primary_expression, 584),
     (mozjs_sym_yield_expression, 638), (mozjs_sym_object, 645),
     (mozjs_sym_object_pattern, 1866), (mozjs_sym_array, 645),
     (mozjs_sym_array_pattern, 1866), (mozjs_sym_jsx_element, 638),
     (mozjs_sym_jsx_opening_element, 1152), (mozjs_sym_jsx_self_closing_element, 638),
     (mozjs_sym_class, 645), (mozjs_sym_function_expression, 645),
     (mozjs_sym_generator_function, 645), (mozjs_sym_arrow_function, 645),
     (mozjs_sym_call_expression, 645), (mozjs_sym_new_expression, 587),
     (mozjs_sym_await_expression, 638), (mozjs_sym_member_expression, 579),
     (mozjs_sym_subscript_expression, 579), (mozjs_sym_assignment_expression, 638),
     (mozjs_sym__augmented_assignment_lhs, 1148), (mozjs_sym_augmented_assignment_expression,
       638),
     (mozjs_sym__destructuring_pattern, 1866), (mozjs_sym_ternary_expression, 638),
     (mozjs_sym_binary_expression, 638), (mozjs_sym_unary_expression, 638),
     (mozjs_sym_update_expression, 638), (mozjs_sym_string, 645),
     (mozjs_sym_template_string, 645), (mozjs_sym_regex, 645),
     (mozjs_sym_meta_property, 645), (mozjs_sym_decorator, 1112),
     (mozjs_sym_formal_parameters, 1788), (mozjs_aux_sym_export_statement_repeat1, 1395),
     (mozjs_sym_identifier, 587), (mozjs_anon_sym_export, 589),
     (mozjs_anon_sym_LBRACE, 465), (mozjs_anon_sym_import, 390),
     (mozjs_anon_sym_let, 589), (mozjs_anon_sym_await, 591),
     (mozjs_anon_sym_LPAREN, 657), (mozjs_anon_sym_yield, 593),
     (mozjs_anon_sym_LBRACK, 683), (mozjs_anon_sym_LT, 827),
     (mozjs_anon_sym_DQUOTE, 407), (mozjs_anon_sym_SQUOTE, 409),
     (mozjs_anon_sym_class, 411), (mozjs_anon_sym_async, 597),
     (mozjs_anon_sym_function, 415), (mozjs_anon_sym_new, 601),
     (mozjs_anon_sym_PLUS, 609), (mozjs_anon_sym_DASH, 609),
     (mozjs_anon_sym_SLASH, 685), (mozjs_anon_sym_BANG, 611),
     (mozjs_anon_sym_TILDE, 611), (mozjs_anon_sym_typeof, 609),
     (mozjs_anon_sym_void, 609), (mozjs_anon_sym_delete, 609),
     (mozjs_anon_sym_PLUS_PLUS, 687), (mozjs_anon_sym_DASH_DASH, 687),
     (mozjs_sym_comment, 5), (mozjs_anon_sym_BQUOTE, 669),
     (mozjs_sym_number, 437), (mozjs_sym_private_property_identifier, 616),
     (mozjs_sym_this, 441), (mozjs_sym_super, 441),
     (mozjs_sym_true, 441), (mozjs_sym_false, 441),
     (mozjs_sym_null, 441), (mozjs_sym_undefined, 618),
     (mozjs_anon_sym_AT, 93), (mozjs_anon_sym_static, 589),
     (mozjs_anon_sym_get, 589), (mozjs_anon_sym_set, 589),
     (mozjs_sym_html_comment, 5)]"

definition mozjs_parse_row_348 :: "(TSSymbol \<times> nat) list" where
  "mozjs_parse_row_348 =
    [(mozjs_sym_import, 1340), (mozjs_sym_parenthesized_expression, 579),
     (mozjs_sym_expression, 956), (mozjs_sym_primary_expression, 584),
     (mozjs_sym_yield_expression, 638), (mozjs_sym_object, 645),
     (mozjs_sym_object_pattern, 1866), (mozjs_sym_array, 645),
     (mozjs_sym_array_pattern, 1866), (mozjs_sym_jsx_element, 638),
     (mozjs_sym_jsx_opening_element, 1152), (mozjs_sym_jsx_self_closing_element, 638),
     (mozjs_sym_class, 645), (mozjs_sym_function_expression, 645),
     (mozjs_sym_generator_function, 645), (mozjs_sym_arrow_function, 645),
     (mozjs_sym_call_expression, 645), (mozjs_sym_new_expression, 587),
     (mozjs_sym_await_expression, 638), (mozjs_sym_member_expression, 579),
     (mozjs_sym_subscript_expression, 579), (mozjs_sym_assignment_expression, 638),
     (mozjs_sym__augmented_assignment_lhs, 1148), (mozjs_sym_augmented_assignment_expression,
       638),
     (mozjs_sym__destructuring_pattern, 1866), (mozjs_sym_ternary_expression, 638),
     (mozjs_sym_binary_expression, 638), (mozjs_sym_unary_expression, 638),
     (mozjs_sym_update_expression, 638), (mozjs_sym_string, 645),
     (mozjs_sym_template_string, 645), (mozjs_sym_regex, 645),
     (mozjs_sym_meta_property, 645), (mozjs_sym_decorator, 1112),
     (mozjs_sym_formal_parameters, 1788), (mozjs_aux_sym_export_statement_repeat1, 1395),
     (mozjs_sym_identifier, 587), (mozjs_anon_sym_export, 589),
     (mozjs_anon_sym_LBRACE, 465), (mozjs_anon_sym_import, 390),
     (mozjs_anon_sym_let, 589), (mozjs_anon_sym_await, 591),
     (mozjs_anon_sym_LPAREN, 657), (mozjs_anon_sym_yield, 593),
     (mozjs_anon_sym_LBRACK, 683), (mozjs_anon_sym_LT, 827),
     (mozjs_anon_sym_DQUOTE, 407), (mozjs_anon_sym_SQUOTE, 409),
     (mozjs_anon_sym_class, 411), (mozjs_anon_sym_async, 597),
     (mozjs_anon_sym_function, 415), (mozjs_anon_sym_new, 601),
     (mozjs_anon_sym_PLUS, 609), (mozjs_anon_sym_DASH, 609),
     (mozjs_anon_sym_SLASH, 685), (mozjs_anon_sym_BANG, 611),
     (mozjs_anon_sym_TILDE, 611), (mozjs_anon_sym_typeof, 609),
     (mozjs_anon_sym_void, 609), (mozjs_anon_sym_delete, 609),
     (mozjs_anon_sym_PLUS_PLUS, 687), (mozjs_anon_sym_DASH_DASH, 687),
     (mozjs_sym_comment, 5), (mozjs_anon_sym_BQUOTE, 669),
     (mozjs_sym_number, 437), (mozjs_sym_private_property_identifier, 616),
     (mozjs_sym_this, 441), (mozjs_sym_super, 441),
     (mozjs_sym_true, 441), (mozjs_sym_false, 441),
     (mozjs_sym_null, 441), (mozjs_sym_undefined, 618),
     (mozjs_anon_sym_AT, 93), (mozjs_anon_sym_static, 589),
     (mozjs_anon_sym_get, 589), (mozjs_anon_sym_set, 589),
     (mozjs_sym_html_comment, 5)]"

definition mozjs_parse_row_349 :: "(TSSymbol \<times> nat) list" where
  "mozjs_parse_row_349 =
    [(mozjs_sym_import, 1340), (mozjs_sym_parenthesized_expression, 579),
     (mozjs_sym_expression, 957), (mozjs_sym_primary_expression, 584),
     (mozjs_sym_yield_expression, 638), (mozjs_sym_object, 645),
     (mozjs_sym_object_pattern, 1866), (mozjs_sym_array, 645),
     (mozjs_sym_array_pattern, 1866), (mozjs_sym_jsx_element, 638),
     (mozjs_sym_jsx_opening_element, 1152), (mozjs_sym_jsx_self_closing_element, 638),
     (mozjs_sym_class, 645), (mozjs_sym_function_expression, 645),
     (mozjs_sym_generator_function, 645), (mozjs_sym_arrow_function, 645),
     (mozjs_sym_call_expression, 645), (mozjs_sym_new_expression, 587),
     (mozjs_sym_await_expression, 638), (mozjs_sym_member_expression, 579),
     (mozjs_sym_subscript_expression, 579), (mozjs_sym_assignment_expression, 638),
     (mozjs_sym__augmented_assignment_lhs, 1148), (mozjs_sym_augmented_assignment_expression,
       638),
     (mozjs_sym__destructuring_pattern, 1866), (mozjs_sym_ternary_expression, 638),
     (mozjs_sym_binary_expression, 638), (mozjs_sym_unary_expression, 638),
     (mozjs_sym_update_expression, 638), (mozjs_sym_string, 645),
     (mozjs_sym_template_string, 645), (mozjs_sym_regex, 645),
     (mozjs_sym_meta_property, 645), (mozjs_sym_decorator, 1112),
     (mozjs_sym_formal_parameters, 1788), (mozjs_aux_sym_export_statement_repeat1, 1395),
     (mozjs_sym_identifier, 587), (mozjs_anon_sym_export, 589),
     (mozjs_anon_sym_LBRACE, 465), (mozjs_anon_sym_import, 390),
     (mozjs_anon_sym_let, 589), (mozjs_anon_sym_await, 591),
     (mozjs_anon_sym_LPAREN, 657), (mozjs_anon_sym_yield, 593),
     (mozjs_anon_sym_LBRACK, 683), (mozjs_anon_sym_LT, 827),
     (mozjs_anon_sym_DQUOTE, 407), (mozjs_anon_sym_SQUOTE, 409),
     (mozjs_anon_sym_class, 411), (mozjs_anon_sym_async, 597),
     (mozjs_anon_sym_function, 415), (mozjs_anon_sym_new, 601),
     (mozjs_anon_sym_PLUS, 609), (mozjs_anon_sym_DASH, 609),
     (mozjs_anon_sym_SLASH, 685), (mozjs_anon_sym_BANG, 611),
     (mozjs_anon_sym_TILDE, 611), (mozjs_anon_sym_typeof, 609),
     (mozjs_anon_sym_void, 609), (mozjs_anon_sym_delete, 609),
     (mozjs_anon_sym_PLUS_PLUS, 687), (mozjs_anon_sym_DASH_DASH, 687),
     (mozjs_sym_comment, 5), (mozjs_anon_sym_BQUOTE, 669),
     (mozjs_sym_number, 437), (mozjs_sym_private_property_identifier, 616),
     (mozjs_sym_this, 441), (mozjs_sym_super, 441),
     (mozjs_sym_true, 441), (mozjs_sym_false, 441),
     (mozjs_sym_null, 441), (mozjs_sym_undefined, 618),
     (mozjs_anon_sym_AT, 93), (mozjs_anon_sym_static, 589),
     (mozjs_anon_sym_get, 589), (mozjs_anon_sym_set, 589),
     (mozjs_sym_html_comment, 5)]"

definition mozjs_parse_row_350 :: "(TSSymbol \<times> nat) list" where
  "mozjs_parse_row_350 =
    [(mozjs_sym_import, 1340), (mozjs_sym_parenthesized_expression, 579),
     (mozjs_sym_expression, 958), (mozjs_sym_primary_expression, 584),
     (mozjs_sym_yield_expression, 638), (mozjs_sym_object, 645),
     (mozjs_sym_object_pattern, 1866), (mozjs_sym_array, 645),
     (mozjs_sym_array_pattern, 1866), (mozjs_sym_jsx_element, 638),
     (mozjs_sym_jsx_opening_element, 1152), (mozjs_sym_jsx_self_closing_element, 638),
     (mozjs_sym_class, 645), (mozjs_sym_function_expression, 645),
     (mozjs_sym_generator_function, 645), (mozjs_sym_arrow_function, 645),
     (mozjs_sym_call_expression, 645), (mozjs_sym_new_expression, 587),
     (mozjs_sym_await_expression, 638), (mozjs_sym_member_expression, 579),
     (mozjs_sym_subscript_expression, 579), (mozjs_sym_assignment_expression, 638),
     (mozjs_sym__augmented_assignment_lhs, 1148), (mozjs_sym_augmented_assignment_expression,
       638),
     (mozjs_sym__destructuring_pattern, 1866), (mozjs_sym_ternary_expression, 638),
     (mozjs_sym_binary_expression, 638), (mozjs_sym_unary_expression, 638),
     (mozjs_sym_update_expression, 638), (mozjs_sym_string, 645),
     (mozjs_sym_template_string, 645), (mozjs_sym_regex, 645),
     (mozjs_sym_meta_property, 645), (mozjs_sym_decorator, 1112),
     (mozjs_sym_formal_parameters, 1788), (mozjs_aux_sym_export_statement_repeat1, 1395),
     (mozjs_sym_identifier, 587), (mozjs_anon_sym_export, 589),
     (mozjs_anon_sym_LBRACE, 465), (mozjs_anon_sym_import, 390),
     (mozjs_anon_sym_let, 589), (mozjs_anon_sym_await, 591),
     (mozjs_anon_sym_LPAREN, 657), (mozjs_anon_sym_yield, 593),
     (mozjs_anon_sym_LBRACK, 683), (mozjs_anon_sym_LT, 827),
     (mozjs_anon_sym_DQUOTE, 407), (mozjs_anon_sym_SQUOTE, 409),
     (mozjs_anon_sym_class, 411), (mozjs_anon_sym_async, 597),
     (mozjs_anon_sym_function, 415), (mozjs_anon_sym_new, 601),
     (mozjs_anon_sym_PLUS, 609), (mozjs_anon_sym_DASH, 609),
     (mozjs_anon_sym_SLASH, 685), (mozjs_anon_sym_BANG, 611),
     (mozjs_anon_sym_TILDE, 611), (mozjs_anon_sym_typeof, 609),
     (mozjs_anon_sym_void, 609), (mozjs_anon_sym_delete, 609),
     (mozjs_anon_sym_PLUS_PLUS, 687), (mozjs_anon_sym_DASH_DASH, 687),
     (mozjs_sym_comment, 5), (mozjs_anon_sym_BQUOTE, 669),
     (mozjs_sym_number, 437), (mozjs_sym_private_property_identifier, 616),
     (mozjs_sym_this, 441), (mozjs_sym_super, 441),
     (mozjs_sym_true, 441), (mozjs_sym_false, 441),
     (mozjs_sym_null, 441), (mozjs_sym_undefined, 618),
     (mozjs_anon_sym_AT, 93), (mozjs_anon_sym_static, 589),
     (mozjs_anon_sym_get, 589), (mozjs_anon_sym_set, 589),
     (mozjs_sym_html_comment, 5)]"

definition mozjs_parse_row_351 :: "(TSSymbol \<times> nat) list" where
  "mozjs_parse_row_351 =
    [(mozjs_sym_import, 1340), (mozjs_sym_parenthesized_expression, 579),
     (mozjs_sym_expression, 959), (mozjs_sym_primary_expression, 584),
     (mozjs_sym_yield_expression, 638), (mozjs_sym_object, 645),
     (mozjs_sym_object_pattern, 1866), (mozjs_sym_array, 645),
     (mozjs_sym_array_pattern, 1866), (mozjs_sym_jsx_element, 638),
     (mozjs_sym_jsx_opening_element, 1152), (mozjs_sym_jsx_self_closing_element, 638),
     (mozjs_sym_class, 645), (mozjs_sym_function_expression, 645),
     (mozjs_sym_generator_function, 645), (mozjs_sym_arrow_function, 645),
     (mozjs_sym_call_expression, 645), (mozjs_sym_new_expression, 587),
     (mozjs_sym_await_expression, 638), (mozjs_sym_member_expression, 579),
     (mozjs_sym_subscript_expression, 579), (mozjs_sym_assignment_expression, 638),
     (mozjs_sym__augmented_assignment_lhs, 1148), (mozjs_sym_augmented_assignment_expression,
       638),
     (mozjs_sym__destructuring_pattern, 1866), (mozjs_sym_ternary_expression, 638),
     (mozjs_sym_binary_expression, 638), (mozjs_sym_unary_expression, 638),
     (mozjs_sym_update_expression, 638), (mozjs_sym_string, 645),
     (mozjs_sym_template_string, 645), (mozjs_sym_regex, 645),
     (mozjs_sym_meta_property, 645), (mozjs_sym_decorator, 1112),
     (mozjs_sym_formal_parameters, 1788), (mozjs_aux_sym_export_statement_repeat1, 1395),
     (mozjs_sym_identifier, 587), (mozjs_anon_sym_export, 589),
     (mozjs_anon_sym_LBRACE, 465), (mozjs_anon_sym_import, 390),
     (mozjs_anon_sym_let, 589), (mozjs_anon_sym_await, 591),
     (mozjs_anon_sym_LPAREN, 657), (mozjs_anon_sym_yield, 593),
     (mozjs_anon_sym_LBRACK, 683), (mozjs_anon_sym_LT, 827),
     (mozjs_anon_sym_DQUOTE, 407), (mozjs_anon_sym_SQUOTE, 409),
     (mozjs_anon_sym_class, 411), (mozjs_anon_sym_async, 597),
     (mozjs_anon_sym_function, 415), (mozjs_anon_sym_new, 601),
     (mozjs_anon_sym_PLUS, 609), (mozjs_anon_sym_DASH, 609),
     (mozjs_anon_sym_SLASH, 685), (mozjs_anon_sym_BANG, 611),
     (mozjs_anon_sym_TILDE, 611), (mozjs_anon_sym_typeof, 609),
     (mozjs_anon_sym_void, 609), (mozjs_anon_sym_delete, 609),
     (mozjs_anon_sym_PLUS_PLUS, 687), (mozjs_anon_sym_DASH_DASH, 687),
     (mozjs_sym_comment, 5), (mozjs_anon_sym_BQUOTE, 669),
     (mozjs_sym_number, 437), (mozjs_sym_private_property_identifier, 616),
     (mozjs_sym_this, 441), (mozjs_sym_super, 441),
     (mozjs_sym_true, 441), (mozjs_sym_false, 441),
     (mozjs_sym_null, 441), (mozjs_sym_undefined, 618),
     (mozjs_anon_sym_AT, 93), (mozjs_anon_sym_static, 589),
     (mozjs_anon_sym_get, 589), (mozjs_anon_sym_set, 589),
     (mozjs_sym_html_comment, 5)]"

definition mozjs_parse_row_352 :: "(TSSymbol \<times> nat) list" where
  "mozjs_parse_row_352 =
    [(mozjs_sym_import, 1340), (mozjs_sym_parenthesized_expression, 579),
     (mozjs_sym_expression, 964), (mozjs_sym_primary_expression, 584),
     (mozjs_sym_yield_expression, 638), (mozjs_sym_object, 645),
     (mozjs_sym_object_pattern, 1866), (mozjs_sym_array, 645),
     (mozjs_sym_array_pattern, 1866), (mozjs_sym_jsx_element, 638),
     (mozjs_sym_jsx_opening_element, 1152), (mozjs_sym_jsx_self_closing_element, 638),
     (mozjs_sym_class, 645), (mozjs_sym_function_expression, 645),
     (mozjs_sym_generator_function, 645), (mozjs_sym_arrow_function, 645),
     (mozjs_sym_call_expression, 645), (mozjs_sym_new_expression, 587),
     (mozjs_sym_await_expression, 638), (mozjs_sym_member_expression, 579),
     (mozjs_sym_subscript_expression, 579), (mozjs_sym_assignment_expression, 638),
     (mozjs_sym__augmented_assignment_lhs, 1148), (mozjs_sym_augmented_assignment_expression,
       638),
     (mozjs_sym__destructuring_pattern, 1866), (mozjs_sym_ternary_expression, 638),
     (mozjs_sym_binary_expression, 638), (mozjs_sym_unary_expression, 638),
     (mozjs_sym_update_expression, 638), (mozjs_sym_string, 645),
     (mozjs_sym_template_string, 645), (mozjs_sym_regex, 645),
     (mozjs_sym_meta_property, 645), (mozjs_sym_decorator, 1112),
     (mozjs_sym_formal_parameters, 1788), (mozjs_aux_sym_export_statement_repeat1, 1395),
     (mozjs_sym_identifier, 587), (mozjs_anon_sym_export, 589),
     (mozjs_anon_sym_LBRACE, 465), (mozjs_anon_sym_import, 390),
     (mozjs_anon_sym_let, 589), (mozjs_anon_sym_await, 591),
     (mozjs_anon_sym_LPAREN, 657), (mozjs_anon_sym_yield, 593),
     (mozjs_anon_sym_LBRACK, 683), (mozjs_anon_sym_LT, 827),
     (mozjs_anon_sym_DQUOTE, 407), (mozjs_anon_sym_SQUOTE, 409),
     (mozjs_anon_sym_class, 411), (mozjs_anon_sym_async, 597),
     (mozjs_anon_sym_function, 415), (mozjs_anon_sym_new, 601),
     (mozjs_anon_sym_PLUS, 609), (mozjs_anon_sym_DASH, 609),
     (mozjs_anon_sym_SLASH, 685), (mozjs_anon_sym_BANG, 611),
     (mozjs_anon_sym_TILDE, 611), (mozjs_anon_sym_typeof, 609),
     (mozjs_anon_sym_void, 609), (mozjs_anon_sym_delete, 609),
     (mozjs_anon_sym_PLUS_PLUS, 687), (mozjs_anon_sym_DASH_DASH, 687),
     (mozjs_sym_comment, 5), (mozjs_anon_sym_BQUOTE, 669),
     (mozjs_sym_number, 437), (mozjs_sym_private_property_identifier, 616),
     (mozjs_sym_this, 441), (mozjs_sym_super, 441),
     (mozjs_sym_true, 441), (mozjs_sym_false, 441),
     (mozjs_sym_null, 441), (mozjs_sym_undefined, 618),
     (mozjs_anon_sym_AT, 93), (mozjs_anon_sym_static, 589),
     (mozjs_anon_sym_get, 589), (mozjs_anon_sym_set, 589),
     (mozjs_sym_html_comment, 5)]"

definition mozjs_parse_row_353 :: "(TSSymbol \<times> nat) list" where
  "mozjs_parse_row_353 =
    [(mozjs_sym_import, 1340), (mozjs_sym_parenthesized_expression, 499),
     (mozjs_sym_expression, 973), (mozjs_sym_primary_expression, 584),
     (mozjs_sym_yield_expression, 638), (mozjs_sym_object, 645),
     (mozjs_sym_object_pattern, 1766), (mozjs_sym_array, 645),
     (mozjs_sym_array_pattern, 1766), (mozjs_sym_jsx_element, 638),
     (mozjs_sym_jsx_opening_element, 1152), (mozjs_sym_jsx_self_closing_element, 638),
     (mozjs_sym_class, 645), (mozjs_sym_function_expression, 645),
     (mozjs_sym_generator_function, 645), (mozjs_sym_arrow_function, 645),
     (mozjs_sym_call_expression, 645), (mozjs_sym_new_expression, 587),
     (mozjs_sym_await_expression, 638), (mozjs_sym_member_expression, 499),
     (mozjs_sym_subscript_expression, 499), (mozjs_sym_assignment_expression, 638),
     (mozjs_sym__augmented_assignment_lhs, 1144), (mozjs_sym_augmented_assignment_expression,
       638),
     (mozjs_sym__destructuring_pattern, 1766), (mozjs_sym_ternary_expression, 638),
     (mozjs_sym_binary_expression, 638), (mozjs_sym_unary_expression, 638),
     (mozjs_sym_update_expression, 638), (mozjs_sym_string, 645),
     (mozjs_sym_template_string, 645), (mozjs_sym_regex, 645),
     (mozjs_sym_meta_property, 645), (mozjs_sym_decorator, 1112),
     (mozjs_sym_formal_parameters, 1828), (mozjs_aux_sym_export_statement_repeat1, 1395),
     (mozjs_sym_identifier, 461), (mozjs_anon_sym_export, 463),
     (mozjs_anon_sym_LBRACE, 465), (mozjs_anon_sym_import, 390),
     (mozjs_anon_sym_let, 463), (mozjs_anon_sym_await, 467),
     (mozjs_anon_sym_LPAREN, 657), (mozjs_anon_sym_yield, 469),
     (mozjs_anon_sym_LBRACK, 683), (mozjs_anon_sym_LT, 827),
     (mozjs_anon_sym_DQUOTE, 407), (mozjs_anon_sym_SQUOTE, 409),
     (mozjs_anon_sym_class, 411), (mozjs_anon_sym_async, 476),
     (mozjs_anon_sym_function, 415), (mozjs_anon_sym_new, 478),
     (mozjs_anon_sym_PLUS, 483), (mozjs_anon_sym_DASH, 483),
     (mozjs_anon_sym_SLASH, 665), (mozjs_anon_sym_BANG, 485),
     (mozjs_anon_sym_TILDE, 485), (mozjs_anon_sym_typeof, 483),
     (mozjs_anon_sym_void, 483), (mozjs_anon_sym_delete, 483),
     (mozjs_anon_sym_PLUS_PLUS, 691), (mozjs_anon_sym_DASH_DASH, 691),
     (mozjs_sym_comment, 5), (mozjs_anon_sym_BQUOTE, 669),
     (mozjs_sym_number, 437), (mozjs_sym_private_property_identifier, 490),
     (mozjs_sym_this, 441), (mozjs_sym_super, 441),
     (mozjs_sym_true, 441), (mozjs_sym_false, 441),
     (mozjs_sym_null, 441), (mozjs_sym_undefined, 492),
     (mozjs_anon_sym_AT, 93), (mozjs_anon_sym_static, 463),
     (mozjs_anon_sym_get, 463), (mozjs_anon_sym_set, 463),
     (mozjs_sym_html_comment, 5)]"

definition mozjs_parse_row_354 :: "(TSSymbol \<times> nat) list" where
  "mozjs_parse_row_354 =
    [(mozjs_sym_import, 1340), (mozjs_sym_parenthesized_expression, 499),
     (mozjs_sym_expression, 978), (mozjs_sym_primary_expression, 584),
     (mozjs_sym_yield_expression, 638), (mozjs_sym_object, 645),
     (mozjs_sym_object_pattern, 1766), (mozjs_sym_array, 645),
     (mozjs_sym_array_pattern, 1766), (mozjs_sym_jsx_element, 638),
     (mozjs_sym_jsx_opening_element, 1152), (mozjs_sym_jsx_self_closing_element, 638),
     (mozjs_sym_class, 645), (mozjs_sym_function_expression, 645),
     (mozjs_sym_generator_function, 645), (mozjs_sym_arrow_function, 645),
     (mozjs_sym_call_expression, 645), (mozjs_sym_new_expression, 587),
     (mozjs_sym_await_expression, 638), (mozjs_sym_member_expression, 499),
     (mozjs_sym_subscript_expression, 499), (mozjs_sym_assignment_expression, 638),
     (mozjs_sym__augmented_assignment_lhs, 1144), (mozjs_sym_augmented_assignment_expression,
       638),
     (mozjs_sym__destructuring_pattern, 1766), (mozjs_sym_ternary_expression, 638),
     (mozjs_sym_binary_expression, 638), (mozjs_sym_unary_expression, 638),
     (mozjs_sym_update_expression, 638), (mozjs_sym_string, 645),
     (mozjs_sym_template_string, 645), (mozjs_sym_regex, 645),
     (mozjs_sym_meta_property, 645), (mozjs_sym_decorator, 1112),
     (mozjs_sym_formal_parameters, 1828), (mozjs_aux_sym_export_statement_repeat1, 1395),
     (mozjs_sym_identifier, 461), (mozjs_anon_sym_export, 463),
     (mozjs_anon_sym_LBRACE, 465), (mozjs_anon_sym_import, 390),
     (mozjs_anon_sym_let, 463), (mozjs_anon_sym_await, 467),
     (mozjs_anon_sym_LPAREN, 657), (mozjs_anon_sym_yield, 469),
     (mozjs_anon_sym_LBRACK, 683), (mozjs_anon_sym_LT, 827),
     (mozjs_anon_sym_DQUOTE, 407), (mozjs_anon_sym_SQUOTE, 409),
     (mozjs_anon_sym_class, 411), (mozjs_anon_sym_async, 476),
     (mozjs_anon_sym_function, 415), (mozjs_anon_sym_new, 478),
     (mozjs_anon_sym_PLUS, 483), (mozjs_anon_sym_DASH, 483),
     (mozjs_anon_sym_SLASH, 665), (mozjs_anon_sym_BANG, 485),
     (mozjs_anon_sym_TILDE, 485), (mozjs_anon_sym_typeof, 483),
     (mozjs_anon_sym_void, 483), (mozjs_anon_sym_delete, 483),
     (mozjs_anon_sym_PLUS_PLUS, 691), (mozjs_anon_sym_DASH_DASH, 691),
     (mozjs_sym_comment, 5), (mozjs_anon_sym_BQUOTE, 669),
     (mozjs_sym_number, 437), (mozjs_sym_private_property_identifier, 490),
     (mozjs_sym_this, 441), (mozjs_sym_super, 441),
     (mozjs_sym_true, 441), (mozjs_sym_false, 441),
     (mozjs_sym_null, 441), (mozjs_sym_undefined, 492),
     (mozjs_anon_sym_AT, 93), (mozjs_anon_sym_static, 463),
     (mozjs_anon_sym_get, 463), (mozjs_anon_sym_set, 463),
     (mozjs_sym_html_comment, 5)]"

definition mozjs_parse_row_355 :: "(TSSymbol \<times> nat) list" where
  "mozjs_parse_row_355 =
    [(mozjs_sym_import, 1333), (mozjs_sym_parenthesized_expression, 559),
     (mozjs_sym_expression, 700), (mozjs_sym_primary_expression, 693),
     (mozjs_sym_yield_expression, 743), (mozjs_sym_object, 793),
     (mozjs_sym_object_pattern, 1811), (mozjs_sym_array, 793),
     (mozjs_sym_array_pattern, 1811), (mozjs_sym_jsx_element, 743),
     (mozjs_sym_jsx_opening_element, 1158), (mozjs_sym_jsx_self_closing_element, 743),
     (mozjs_sym_class, 793), (mozjs_sym_function_expression, 793),
     (mozjs_sym_generator_function, 793), (mozjs_sym_arrow_function, 793),
     (mozjs_sym_call_expression, 793), (mozjs_sym_new_expression, 692),
     (mozjs_sym_await_expression, 743), (mozjs_sym_member_expression, 559),
     (mozjs_sym_subscript_expression, 559), (mozjs_sym_assignment_expression, 743),
     (mozjs_sym__augmented_assignment_lhs, 1143), (mozjs_sym_augmented_assignment_expression,
       743),
     (mozjs_sym__destructuring_pattern, 1811), (mozjs_sym_ternary_expression, 743),
     (mozjs_sym_binary_expression, 743), (mozjs_sym_unary_expression, 743),
     (mozjs_sym_update_expression, 743), (mozjs_sym_string, 793),
     (mozjs_sym_template_string, 793), (mozjs_sym_regex, 793),
     (mozjs_sym_meta_property, 793), (mozjs_sym_decorator, 1112),
     (mozjs_sym_formal_parameters, 1812), (mozjs_aux_sym_export_statement_repeat1, 1331),
     (mozjs_sym_identifier, 551), (mozjs_anon_sym_export, 553),
     (mozjs_anon_sym_LBRACE, 309), (mozjs_anon_sym_import, 315),
     (mozjs_anon_sym_let, 553), (mozjs_anon_sym_await, 555),
     (mozjs_anon_sym_LPAREN, 37), (mozjs_anon_sym_yield, 557),
     (mozjs_anon_sym_LBRACK, 59), (mozjs_anon_sym_LT, 61),
     (mozjs_anon_sym_DQUOTE, 63), (mozjs_anon_sym_SQUOTE, 65),
     (mozjs_anon_sym_class, 336), (mozjs_anon_sym_async, 561),
     (mozjs_anon_sym_function, 340), (mozjs_anon_sym_new, 565),
     (mozjs_anon_sym_PLUS, 573), (mozjs_anon_sym_DASH, 573),
     (mozjs_anon_sym_SLASH, 677), (mozjs_anon_sym_BANG, 575),
     (mozjs_anon_sym_TILDE, 575), (mozjs_anon_sym_typeof, 573),
     (mozjs_anon_sym_void, 573), (mozjs_anon_sym_delete, 573),
     (mozjs_anon_sym_PLUS_PLUS, 679), (mozjs_anon_sym_DASH_DASH, 679),
     (mozjs_sym_comment, 5), (mozjs_anon_sym_BQUOTE, 83),
     (mozjs_sym_number, 85), (mozjs_sym_private_property_identifier, 580),
     (mozjs_sym_this, 89), (mozjs_sym_super, 89),
     (mozjs_sym_true, 89), (mozjs_sym_false, 89),
     (mozjs_sym_null, 89), (mozjs_sym_undefined, 582),
     (mozjs_anon_sym_AT, 93), (mozjs_anon_sym_static, 553),
     (mozjs_anon_sym_get, 553), (mozjs_anon_sym_set, 553),
     (mozjs_sym_html_comment, 5)]"

definition mozjs_parse_row_356 :: "(TSSymbol \<times> nat) list" where
  "mozjs_parse_row_356 =
    [(mozjs_sym_import, 1340), (mozjs_sym_parenthesized_expression, 499),
     (mozjs_sym_expression, 980), (mozjs_sym_primary_expression, 584),
     (mozjs_sym_yield_expression, 638), (mozjs_sym_object, 645),
     (mozjs_sym_object_pattern, 1766), (mozjs_sym_array, 645),
     (mozjs_sym_array_pattern, 1766), (mozjs_sym_jsx_element, 638),
     (mozjs_sym_jsx_opening_element, 1152), (mozjs_sym_jsx_self_closing_element, 638),
     (mozjs_sym_class, 645), (mozjs_sym_function_expression, 645),
     (mozjs_sym_generator_function, 645), (mozjs_sym_arrow_function, 645),
     (mozjs_sym_call_expression, 645), (mozjs_sym_new_expression, 587),
     (mozjs_sym_await_expression, 638), (mozjs_sym_member_expression, 499),
     (mozjs_sym_subscript_expression, 499), (mozjs_sym_assignment_expression, 638),
     (mozjs_sym__augmented_assignment_lhs, 1144), (mozjs_sym_augmented_assignment_expression,
       638),
     (mozjs_sym__destructuring_pattern, 1766), (mozjs_sym_ternary_expression, 638),
     (mozjs_sym_binary_expression, 638), (mozjs_sym_unary_expression, 638),
     (mozjs_sym_update_expression, 638), (mozjs_sym_string, 645),
     (mozjs_sym_template_string, 645), (mozjs_sym_regex, 645),
     (mozjs_sym_meta_property, 645), (mozjs_sym_decorator, 1112),
     (mozjs_sym_formal_parameters, 1828), (mozjs_aux_sym_export_statement_repeat1, 1395),
     (mozjs_sym_identifier, 461), (mozjs_anon_sym_export, 463),
     (mozjs_anon_sym_LBRACE, 465), (mozjs_anon_sym_import, 390),
     (mozjs_anon_sym_let, 463), (mozjs_anon_sym_await, 467),
     (mozjs_anon_sym_LPAREN, 657), (mozjs_anon_sym_yield, 469),
     (mozjs_anon_sym_LBRACK, 683), (mozjs_anon_sym_LT, 827),
     (mozjs_anon_sym_DQUOTE, 407), (mozjs_anon_sym_SQUOTE, 409),
     (mozjs_anon_sym_class, 411), (mozjs_anon_sym_async, 476),
     (mozjs_anon_sym_function, 415), (mozjs_anon_sym_new, 478),
     (mozjs_anon_sym_PLUS, 483), (mozjs_anon_sym_DASH, 483),
     (mozjs_anon_sym_SLASH, 665), (mozjs_anon_sym_BANG, 485),
     (mozjs_anon_sym_TILDE, 485), (mozjs_anon_sym_typeof, 483),
     (mozjs_anon_sym_void, 483), (mozjs_anon_sym_delete, 483),
     (mozjs_anon_sym_PLUS_PLUS, 691), (mozjs_anon_sym_DASH_DASH, 691),
     (mozjs_sym_comment, 5), (mozjs_anon_sym_BQUOTE, 669),
     (mozjs_sym_number, 437), (mozjs_sym_private_property_identifier, 490),
     (mozjs_sym_this, 441), (mozjs_sym_super, 441),
     (mozjs_sym_true, 441), (mozjs_sym_false, 441),
     (mozjs_sym_null, 441), (mozjs_sym_undefined, 492),
     (mozjs_anon_sym_AT, 93), (mozjs_anon_sym_static, 463),
     (mozjs_anon_sym_get, 463), (mozjs_anon_sym_set, 463),
     (mozjs_sym_html_comment, 5)]"

definition mozjs_parse_row_357 :: "(TSSymbol \<times> nat) list" where
  "mozjs_parse_row_357 =
    [(mozjs_sym_string, 1545), (mozjs_sym_formal_parameters, 1813),
     (mozjs_sym__property_name, 1545), (mozjs_sym_computed_property_name, 1545),
     (mozjs_aux_sym_object_repeat1, 1442), (mozjs_aux_sym_object_pattern_repeat1, 1414),
     (mozjs_sym_identifier, 1070), (mozjs_anon_sym_export, 1072),
     (mozjs_anon_sym_STAR, 1074), (mozjs_anon_sym_COMMA, 311),
     (mozjs_anon_sym_RBRACE, 372), (mozjs_anon_sym_let, 1072),
     (mozjs_anon_sym_await, 1072), (mozjs_anon_sym_LPAREN, 1077),
     (mozjs_anon_sym_SEMI, 311), (mozjs_anon_sym_in, 307),
     (mozjs_anon_sym_COLON, 325), (mozjs_anon_sym_EQ, 328),
     (mozjs_anon_sym_LBRACK, 1081), (mozjs_anon_sym_LT, 307),
     (mozjs_anon_sym_GT, 307), (mozjs_anon_sym_DOT, 307),
     (mozjs_anon_sym_DQUOTE, 1084), (mozjs_anon_sym_SQUOTE, 1086),
     (mozjs_anon_sym_async, 1072), (mozjs_anon_sym_function, 1088),
     (mozjs_anon_sym_EQ_GT, 342), (mozjs_sym_optional_chain, 311),
     (mozjs_anon_sym_PLUS_EQ, 344), (mozjs_anon_sym_DASH_EQ, 344),
     (mozjs_anon_sym_STAR_EQ, 344), (mozjs_anon_sym_SLASH_EQ, 344),
     (mozjs_anon_sym_PERCENT_EQ, 344), (mozjs_anon_sym_CARET_EQ, 344),
     (mozjs_anon_sym_AMP_EQ, 344), (mozjs_anon_sym_PIPE_EQ, 344),
     (mozjs_anon_sym_GT_GT_EQ, 344), (mozjs_anon_sym_GT_GT_GT_EQ, 344),
     (mozjs_anon_sym_LT_LT_EQ, 344), (mozjs_anon_sym_STAR_STAR_EQ, 344),
     (mozjs_anon_sym_AMP_AMP_EQ, 344), (mozjs_anon_sym_PIPE_PIPE_EQ, 344),
     (mozjs_anon_sym_QMARK_QMARK_EQ, 344), (mozjs_anon_sym_AMP_AMP, 307),
     (mozjs_anon_sym_PIPE_PIPE, 307), (mozjs_anon_sym_GT_GT, 307),
     (mozjs_anon_sym_GT_GT_GT, 307), (mozjs_anon_sym_LT_LT, 307),
     (mozjs_anon_sym_AMP, 307), (mozjs_anon_sym_CARET, 307),
     (mozjs_anon_sym_PIPE, 307), (mozjs_anon_sym_PLUS, 307),
     (mozjs_anon_sym_DASH, 307), (mozjs_anon_sym_SLASH, 307),
     (mozjs_anon_sym_PERCENT, 307), (mozjs_anon_sym_STAR_STAR, 307),
     (mozjs_anon_sym_LT_EQ, 311), (mozjs_anon_sym_EQ_EQ, 307),
     (mozjs_anon_sym_EQ_EQ_EQ, 311), (mozjs_anon_sym_BANG_EQ, 307),
     (mozjs_anon_sym_BANG_EQ_EQ, 311), (mozjs_anon_sym_GT_EQ, 311),
     (mozjs_anon_sym_QMARK_QMARK, 307), (mozjs_anon_sym_instanceof, 307),
     (mozjs_anon_sym_PLUS_PLUS, 311), (mozjs_anon_sym_DASH_DASH, 311),
     (mozjs_sym_comment, 5), (mozjs_anon_sym_BQUOTE, 311),
     (mozjs_sym_number, 1090), (mozjs_sym_private_property_identifier, 1090),
     (mozjs_anon_sym_static, 1072), (mozjs_anon_sym_get, 1092),
     (mozjs_anon_sym_set, 1092), (mozjs_sym__automatic_semicolon, 311),
     (mozjs_sym__ternary_qmark, 311), (mozjs_sym_html_comment, 5)]"

definition mozjs_parse_row_358 :: "(TSSymbol \<times> nat) list" where
  "mozjs_parse_row_358 =
    [(mozjs_sym_string, 1545), (mozjs_sym_formal_parameters, 1813),
     (mozjs_sym__property_name, 1545), (mozjs_sym_computed_property_name, 1545),
     (mozjs_aux_sym_object_repeat1, 1411), (mozjs_aux_sym_object_pattern_repeat1, 1414),
     (mozjs_sym_identifier, 1070), (mozjs_anon_sym_export, 1072),
     (mozjs_anon_sym_STAR, 1074), (mozjs_anon_sym_COMMA, 311),
     (mozjs_anon_sym_RBRACE, 313), (mozjs_anon_sym_let, 1072),
     (mozjs_anon_sym_await, 1072), (mozjs_anon_sym_LPAREN, 1077),
     (mozjs_anon_sym_SEMI, 311), (mozjs_anon_sym_in, 307),
     (mozjs_anon_sym_COLON, 325), (mozjs_anon_sym_EQ, 328),
     (mozjs_anon_sym_LBRACK, 1081), (mozjs_anon_sym_LT, 307),
     (mozjs_anon_sym_GT, 307), (mozjs_anon_sym_DOT, 307),
     (mozjs_anon_sym_DQUOTE, 1084), (mozjs_anon_sym_SQUOTE, 1086),
     (mozjs_anon_sym_async, 1072), (mozjs_anon_sym_function, 1088),
     (mozjs_anon_sym_EQ_GT, 342), (mozjs_sym_optional_chain, 311),
     (mozjs_anon_sym_PLUS_EQ, 344), (mozjs_anon_sym_DASH_EQ, 344),
     (mozjs_anon_sym_STAR_EQ, 344), (mozjs_anon_sym_SLASH_EQ, 344),
     (mozjs_anon_sym_PERCENT_EQ, 344), (mozjs_anon_sym_CARET_EQ, 344),
     (mozjs_anon_sym_AMP_EQ, 344), (mozjs_anon_sym_PIPE_EQ, 344),
     (mozjs_anon_sym_GT_GT_EQ, 344), (mozjs_anon_sym_GT_GT_GT_EQ, 344),
     (mozjs_anon_sym_LT_LT_EQ, 344), (mozjs_anon_sym_STAR_STAR_EQ, 344),
     (mozjs_anon_sym_AMP_AMP_EQ, 344), (mozjs_anon_sym_PIPE_PIPE_EQ, 344),
     (mozjs_anon_sym_QMARK_QMARK_EQ, 344), (mozjs_anon_sym_AMP_AMP, 307),
     (mozjs_anon_sym_PIPE_PIPE, 307), (mozjs_anon_sym_GT_GT, 307),
     (mozjs_anon_sym_GT_GT_GT, 307), (mozjs_anon_sym_LT_LT, 307),
     (mozjs_anon_sym_AMP, 307), (mozjs_anon_sym_CARET, 307),
     (mozjs_anon_sym_PIPE, 307), (mozjs_anon_sym_PLUS, 307),
     (mozjs_anon_sym_DASH, 307), (mozjs_anon_sym_SLASH, 307),
     (mozjs_anon_sym_PERCENT, 307), (mozjs_anon_sym_STAR_STAR, 307),
     (mozjs_anon_sym_LT_EQ, 311), (mozjs_anon_sym_EQ_EQ, 307),
     (mozjs_anon_sym_EQ_EQ_EQ, 311), (mozjs_anon_sym_BANG_EQ, 307),
     (mozjs_anon_sym_BANG_EQ_EQ, 311), (mozjs_anon_sym_GT_EQ, 311),
     (mozjs_anon_sym_QMARK_QMARK, 307), (mozjs_anon_sym_instanceof, 307),
     (mozjs_anon_sym_PLUS_PLUS, 311), (mozjs_anon_sym_DASH_DASH, 311),
     (mozjs_sym_comment, 5), (mozjs_anon_sym_BQUOTE, 311),
     (mozjs_sym_number, 1090), (mozjs_sym_private_property_identifier, 1090),
     (mozjs_anon_sym_static, 1072), (mozjs_anon_sym_get, 1092),
     (mozjs_anon_sym_set, 1092), (mozjs_sym__automatic_semicolon, 311),
     (mozjs_sym__ternary_qmark, 311), (mozjs_sym_html_comment, 5)]"

definition mozjs_parse_row_359 :: "(TSSymbol \<times> nat) list" where
  "mozjs_parse_row_359 =
    [(mozjs_sym_string, 1545), (mozjs_sym_formal_parameters, 1813),
     (mozjs_sym__property_name, 1545), (mozjs_sym_computed_property_name, 1545),
     (mozjs_aux_sym_object_repeat1, 1442), (mozjs_aux_sym_object_pattern_repeat1, 1414),
     (mozjs_sym_identifier, 1070), (mozjs_anon_sym_export, 1072),
     (mozjs_anon_sym_STAR, 1074), (mozjs_anon_sym_COMMA, 311),
     (mozjs_anon_sym_RBRACE, 374), (mozjs_anon_sym_let, 1072),
     (mozjs_anon_sym_await, 1072), (mozjs_anon_sym_LPAREN, 1077),
     (mozjs_anon_sym_SEMI, 311), (mozjs_anon_sym_in, 307),
     (mozjs_anon_sym_COLON, 325), (mozjs_anon_sym_EQ, 328),
     (mozjs_anon_sym_LBRACK, 1081), (mozjs_anon_sym_LT, 307),
     (mozjs_anon_sym_GT, 307), (mozjs_anon_sym_DOT, 307),
     (mozjs_anon_sym_DQUOTE, 1084), (mozjs_anon_sym_SQUOTE, 1086),
     (mozjs_anon_sym_async, 1072), (mozjs_anon_sym_function, 1088),
     (mozjs_anon_sym_EQ_GT, 342), (mozjs_sym_optional_chain, 311),
     (mozjs_anon_sym_PLUS_EQ, 344), (mozjs_anon_sym_DASH_EQ, 344),
     (mozjs_anon_sym_STAR_EQ, 344), (mozjs_anon_sym_SLASH_EQ, 344),
     (mozjs_anon_sym_PERCENT_EQ, 344), (mozjs_anon_sym_CARET_EQ, 344),
     (mozjs_anon_sym_AMP_EQ, 344), (mozjs_anon_sym_PIPE_EQ, 344),
     (mozjs_anon_sym_GT_GT_EQ, 344), (mozjs_anon_sym_GT_GT_GT_EQ, 344),
     (mozjs_anon_sym_LT_LT_EQ, 344), (mozjs_anon_sym_STAR_STAR_EQ, 344),
     (mozjs_anon_sym_AMP_AMP_EQ, 344), (mozjs_anon_sym_PIPE_PIPE_EQ, 344),
     (mozjs_anon_sym_QMARK_QMARK_EQ, 344), (mozjs_anon_sym_AMP_AMP, 307),
     (mozjs_anon_sym_PIPE_PIPE, 307), (mozjs_anon_sym_GT_GT, 307),
     (mozjs_anon_sym_GT_GT_GT, 307), (mozjs_anon_sym_LT_LT, 307),
     (mozjs_anon_sym_AMP, 307), (mozjs_anon_sym_CARET, 307),
     (mozjs_anon_sym_PIPE, 307), (mozjs_anon_sym_PLUS, 307),
     (mozjs_anon_sym_DASH, 307), (mozjs_anon_sym_SLASH, 307),
     (mozjs_anon_sym_PERCENT, 307), (mozjs_anon_sym_STAR_STAR, 307),
     (mozjs_anon_sym_LT_EQ, 311), (mozjs_anon_sym_EQ_EQ, 307),
     (mozjs_anon_sym_EQ_EQ_EQ, 311), (mozjs_anon_sym_BANG_EQ, 307),
     (mozjs_anon_sym_BANG_EQ_EQ, 311), (mozjs_anon_sym_GT_EQ, 311),
     (mozjs_anon_sym_QMARK_QMARK, 307), (mozjs_anon_sym_instanceof, 307),
     (mozjs_anon_sym_PLUS_PLUS, 311), (mozjs_anon_sym_DASH_DASH, 311),
     (mozjs_sym_comment, 5), (mozjs_anon_sym_BQUOTE, 311),
     (mozjs_sym_number, 1090), (mozjs_sym_private_property_identifier, 1090),
     (mozjs_anon_sym_static, 1072), (mozjs_anon_sym_get, 1092),
     (mozjs_anon_sym_set, 1092), (mozjs_sym__automatic_semicolon, 311),
     (mozjs_sym__ternary_qmark, 311), (mozjs_sym_html_comment, 5)]"

definition mozjs_parse_row_360 :: "(TSSymbol \<times> nat) list" where
  "mozjs_parse_row_360 =
    [(mozjs_sym_string, 1545), (mozjs_sym__property_name, 1545),
     (mozjs_sym_computed_property_name, 1545), (mozjs_aux_sym_object_repeat1, 1442),
     (mozjs_aux_sym_object_pattern_repeat1, 1414), (mozjs_sym_identifier, 1094),
     (mozjs_anon_sym_export, 1094), (mozjs_anon_sym_STAR, 1074),
     (mozjs_anon_sym_COMMA, 311), (mozjs_anon_sym_RBRACE, 372),
     (mozjs_anon_sym_let, 1094), (mozjs_anon_sym_await, 1094),
     (mozjs_anon_sym_LPAREN, 949), (mozjs_anon_sym_SEMI, 311),
     (mozjs_anon_sym_in, 307), (mozjs_anon_sym_COLON, 325),
     (mozjs_anon_sym_EQ, 328), (mozjs_anon_sym_LBRACK, 1081),
     (mozjs_anon_sym_LT, 307), (mozjs_anon_sym_GT, 307),
     (mozjs_anon_sym_DOT, 307), (mozjs_anon_sym_DQUOTE, 1084),
     (mozjs_anon_sym_SQUOTE, 1086), (mozjs_anon_sym_async, 1096),
     (mozjs_anon_sym_EQ_GT, 342), (mozjs_sym_optional_chain, 311),
     (mozjs_anon_sym_PLUS_EQ, 344), (mozjs_anon_sym_DASH_EQ, 344),
     (mozjs_anon_sym_STAR_EQ, 344), (mozjs_anon_sym_SLASH_EQ, 344),
     (mozjs_anon_sym_PERCENT_EQ, 344), (mozjs_anon_sym_CARET_EQ, 344),
     (mozjs_anon_sym_AMP_EQ, 344), (mozjs_anon_sym_PIPE_EQ, 344),
     (mozjs_anon_sym_GT_GT_EQ, 344), (mozjs_anon_sym_GT_GT_GT_EQ, 344),
     (mozjs_anon_sym_LT_LT_EQ, 344), (mozjs_anon_sym_STAR_STAR_EQ, 344),
     (mozjs_anon_sym_AMP_AMP_EQ, 344), (mozjs_anon_sym_PIPE_PIPE_EQ, 344),
     (mozjs_anon_sym_QMARK_QMARK_EQ, 344), (mozjs_anon_sym_AMP_AMP, 307),
     (mozjs_anon_sym_PIPE_PIPE, 307), (mozjs_anon_sym_GT_GT, 307),
     (mozjs_anon_sym_GT_GT_GT, 307), (mozjs_anon_sym_LT_LT, 307),
     (mozjs_anon_sym_AMP, 307), (mozjs_anon_sym_CARET, 307),
     (mozjs_anon_sym_PIPE, 307), (mozjs_anon_sym_PLUS, 307),
     (mozjs_anon_sym_DASH, 307), (mozjs_anon_sym_SLASH, 307),
     (mozjs_anon_sym_PERCENT, 307), (mozjs_anon_sym_STAR_STAR, 307),
     (mozjs_anon_sym_LT_EQ, 311), (mozjs_anon_sym_EQ_EQ, 307),
     (mozjs_anon_sym_EQ_EQ_EQ, 311), (mozjs_anon_sym_BANG_EQ, 307),
     (mozjs_anon_sym_BANG_EQ_EQ, 311), (mozjs_anon_sym_GT_EQ, 311),
     (mozjs_anon_sym_QMARK_QMARK, 307), (mozjs_anon_sym_instanceof, 307),
     (mozjs_anon_sym_PLUS_PLUS, 311), (mozjs_anon_sym_DASH_DASH, 311),
     (mozjs_sym_comment, 5), (mozjs_anon_sym_BQUOTE, 311),
     (mozjs_sym_number, 1090), (mozjs_sym_private_property_identifier, 1090),
     (mozjs_anon_sym_static, 1094), (mozjs_anon_sym_get, 1098),
     (mozjs_anon_sym_set, 1098), (mozjs_sym__automatic_semicolon, 311),
     (mozjs_sym__ternary_qmark, 311), (mozjs_sym_html_comment, 5)]"

definition mozjs_parse_row_361 :: "(TSSymbol \<times> nat) list" where
  "mozjs_parse_row_361 =
    [(mozjs_sym_string, 1545), (mozjs_sym__property_name, 1545),
     (mozjs_sym_computed_property_name, 1545), (mozjs_aux_sym_object_repeat1, 1411),
     (mozjs_aux_sym_object_pattern_repeat1, 1414), (mozjs_sym_identifier, 1094),
     (mozjs_anon_sym_export, 1094), (mozjs_anon_sym_STAR, 307),
     (mozjs_anon_sym_COMMA, 311), (mozjs_anon_sym_RBRACE, 313),
     (mozjs_anon_sym_let, 1094), (mozjs_anon_sym_await, 1094),
     (mozjs_anon_sym_LPAREN, 949), (mozjs_anon_sym_SEMI, 311),
     (mozjs_anon_sym_in, 307), (mozjs_anon_sym_COLON, 325),
     (mozjs_anon_sym_EQ, 328), (mozjs_anon_sym_LBRACK, 1081),
     (mozjs_anon_sym_LT, 307), (mozjs_anon_sym_GT, 307),
     (mozjs_anon_sym_DOT, 307), (mozjs_anon_sym_DQUOTE, 1084),
     (mozjs_anon_sym_SQUOTE, 1086), (mozjs_anon_sym_async, 1094),
     (mozjs_anon_sym_EQ_GT, 342), (mozjs_sym_optional_chain, 311),
     (mozjs_anon_sym_PLUS_EQ, 344), (mozjs_anon_sym_DASH_EQ, 344),
     (mozjs_anon_sym_STAR_EQ, 344), (mozjs_anon_sym_SLASH_EQ, 344),
     (mozjs_anon_sym_PERCENT_EQ, 344), (mozjs_anon_sym_CARET_EQ, 344),
     (mozjs_anon_sym_AMP_EQ, 344), (mozjs_anon_sym_PIPE_EQ, 344),
     (mozjs_anon_sym_GT_GT_EQ, 344), (mozjs_anon_sym_GT_GT_GT_EQ, 344),
     (mozjs_anon_sym_LT_LT_EQ, 344), (mozjs_anon_sym_STAR_STAR_EQ, 344),
     (mozjs_anon_sym_AMP_AMP_EQ, 344), (mozjs_anon_sym_PIPE_PIPE_EQ, 344),
     (mozjs_anon_sym_QMARK_QMARK_EQ, 344), (mozjs_anon_sym_AMP_AMP, 307),
     (mozjs_anon_sym_PIPE_PIPE, 307), (mozjs_anon_sym_GT_GT, 307),
     (mozjs_anon_sym_GT_GT_GT, 307), (mozjs_anon_sym_LT_LT, 307),
     (mozjs_anon_sym_AMP, 307), (mozjs_anon_sym_CARET, 307),
     (mozjs_anon_sym_PIPE, 307), (mozjs_anon_sym_PLUS, 307),
     (mozjs_anon_sym_DASH, 307), (mozjs_anon_sym_SLASH, 307),
     (mozjs_anon_sym_PERCENT, 307), (mozjs_anon_sym_STAR_STAR, 307),
     (mozjs_anon_sym_LT_EQ, 311), (mozjs_anon_sym_EQ_EQ, 307),
     (mozjs_anon_sym_EQ_EQ_EQ, 311), (mozjs_anon_sym_BANG_EQ, 307),
     (mozjs_anon_sym_BANG_EQ_EQ, 311), (mozjs_anon_sym_GT_EQ, 311),
     (mozjs_anon_sym_QMARK_QMARK, 307), (mozjs_anon_sym_instanceof, 307),
     (mozjs_anon_sym_PLUS_PLUS, 311), (mozjs_anon_sym_DASH_DASH, 311),
     (mozjs_sym_comment, 5), (mozjs_anon_sym_BQUOTE, 311),
     (mozjs_sym_number, 1090), (mozjs_sym_private_property_identifier, 1090),
     (mozjs_anon_sym_static, 1094), (mozjs_anon_sym_get, 1094),
     (mozjs_anon_sym_set, 1094), (mozjs_sym__automatic_semicolon, 311),
     (mozjs_sym__ternary_qmark, 311), (mozjs_sym_html_comment, 5)]"

definition mozjs_parse_row_362 :: "(TSSymbol \<times> nat) list" where
  "mozjs_parse_row_362 =
    [(mozjs_sym_string, 1545), (mozjs_sym__property_name, 1545),
     (mozjs_sym_computed_property_name, 1545), (mozjs_aux_sym_object_repeat1, 1442),
     (mozjs_aux_sym_object_pattern_repeat1, 1414), (mozjs_sym_identifier, 1094),
     (mozjs_anon_sym_export, 1094), (mozjs_anon_sym_STAR, 307),
     (mozjs_anon_sym_COMMA, 311), (mozjs_anon_sym_RBRACE, 372),
     (mozjs_anon_sym_let, 1094), (mozjs_anon_sym_await, 1094),
     (mozjs_anon_sym_LPAREN, 949), (mozjs_anon_sym_SEMI, 311),
     (mozjs_anon_sym_in, 307), (mozjs_anon_sym_COLON, 325),
     (mozjs_anon_sym_EQ, 328), (mozjs_anon_sym_LBRACK, 1081),
     (mozjs_anon_sym_LT, 307), (mozjs_anon_sym_GT, 307),
     (mozjs_anon_sym_DOT, 307), (mozjs_anon_sym_DQUOTE, 1084),
     (mozjs_anon_sym_SQUOTE, 1086), (mozjs_anon_sym_async, 1094),
     (mozjs_anon_sym_EQ_GT, 342), (mozjs_sym_optional_chain, 311),
     (mozjs_anon_sym_PLUS_EQ, 344), (mozjs_anon_sym_DASH_EQ, 344),
     (mozjs_anon_sym_STAR_EQ, 344), (mozjs_anon_sym_SLASH_EQ, 344),
     (mozjs_anon_sym_PERCENT_EQ, 344), (mozjs_anon_sym_CARET_EQ, 344),
     (mozjs_anon_sym_AMP_EQ, 344), (mozjs_anon_sym_PIPE_EQ, 344),
     (mozjs_anon_sym_GT_GT_EQ, 344), (mozjs_anon_sym_GT_GT_GT_EQ, 344),
     (mozjs_anon_sym_LT_LT_EQ, 344), (mozjs_anon_sym_STAR_STAR_EQ, 344),
     (mozjs_anon_sym_AMP_AMP_EQ, 344), (mozjs_anon_sym_PIPE_PIPE_EQ, 344),
     (mozjs_anon_sym_QMARK_QMARK_EQ, 344), (mozjs_anon_sym_AMP_AMP, 307),
     (mozjs_anon_sym_PIPE_PIPE, 307), (mozjs_anon_sym_GT_GT, 307),
     (mozjs_anon_sym_GT_GT_GT, 307), (mozjs_anon_sym_LT_LT, 307),
     (mozjs_anon_sym_AMP, 307), (mozjs_anon_sym_CARET, 307),
     (mozjs_anon_sym_PIPE, 307), (mozjs_anon_sym_PLUS, 307),
     (mozjs_anon_sym_DASH, 307), (mozjs_anon_sym_SLASH, 307),
     (mozjs_anon_sym_PERCENT, 307), (mozjs_anon_sym_STAR_STAR, 307),
     (mozjs_anon_sym_LT_EQ, 311), (mozjs_anon_sym_EQ_EQ, 307),
     (mozjs_anon_sym_EQ_EQ_EQ, 311), (mozjs_anon_sym_BANG_EQ, 307),
     (mozjs_anon_sym_BANG_EQ_EQ, 311), (mozjs_anon_sym_GT_EQ, 311),
     (mozjs_anon_sym_QMARK_QMARK, 307), (mozjs_anon_sym_instanceof, 307),
     (mozjs_anon_sym_PLUS_PLUS, 311), (mozjs_anon_sym_DASH_DASH, 311),
     (mozjs_sym_comment, 5), (mozjs_anon_sym_BQUOTE, 311),
     (mozjs_sym_number, 1090), (mozjs_sym_private_property_identifier, 1090),
     (mozjs_anon_sym_static, 1094), (mozjs_anon_sym_get, 1094),
     (mozjs_anon_sym_set, 1094), (mozjs_sym__automatic_semicolon, 311),
     (mozjs_sym__ternary_qmark, 311), (mozjs_sym_html_comment, 5)]"

definition mozjs_parse_row_363 :: "(TSSymbol \<times> nat) list" where
  "mozjs_parse_row_363 =
    [(mozjs_sym_string, 1545), (mozjs_sym__property_name, 1545),
     (mozjs_sym_computed_property_name, 1545), (mozjs_aux_sym_object_repeat1, 1442),
     (mozjs_aux_sym_object_pattern_repeat1, 1414), (mozjs_sym_identifier, 1094),
     (mozjs_anon_sym_export, 1094), (mozjs_anon_sym_STAR, 307),
     (mozjs_anon_sym_COMMA, 311), (mozjs_anon_sym_RBRACE, 374),
     (mozjs_anon_sym_let, 1094), (mozjs_anon_sym_await, 1094),
     (mozjs_anon_sym_LPAREN, 949), (mozjs_anon_sym_SEMI, 311),
     (mozjs_anon_sym_in, 307), (mozjs_anon_sym_COLON, 325),
     (mozjs_anon_sym_EQ, 328), (mozjs_anon_sym_LBRACK, 1081),
     (mozjs_anon_sym_LT, 307), (mozjs_anon_sym_GT, 307),
     (mozjs_anon_sym_DOT, 307), (mozjs_anon_sym_DQUOTE, 1084),
     (mozjs_anon_sym_SQUOTE, 1086), (mozjs_anon_sym_async, 1094),
     (mozjs_anon_sym_EQ_GT, 342), (mozjs_sym_optional_chain, 311),
     (mozjs_anon_sym_PLUS_EQ, 344), (mozjs_anon_sym_DASH_EQ, 344),
     (mozjs_anon_sym_STAR_EQ, 344), (mozjs_anon_sym_SLASH_EQ, 344),
     (mozjs_anon_sym_PERCENT_EQ, 344), (mozjs_anon_sym_CARET_EQ, 344),
     (mozjs_anon_sym_AMP_EQ, 344), (mozjs_anon_sym_PIPE_EQ, 344),
     (mozjs_anon_sym_GT_GT_EQ, 344), (mozjs_anon_sym_GT_GT_GT_EQ, 344),
     (mozjs_anon_sym_LT_LT_EQ, 344), (mozjs_anon_sym_STAR_STAR_EQ, 344),
     (mozjs_anon_sym_AMP_AMP_EQ, 344), (mozjs_anon_sym_PIPE_PIPE_EQ, 344),
     (mozjs_anon_sym_QMARK_QMARK_EQ, 344), (mozjs_anon_sym_AMP_AMP, 307),
     (mozjs_anon_sym_PIPE_PIPE, 307), (mozjs_anon_sym_GT_GT, 307),
     (mozjs_anon_sym_GT_GT_GT, 307), (mozjs_anon_sym_LT_LT, 307),
     (mozjs_anon_sym_AMP, 307), (mozjs_anon_sym_CARET, 307),
     (mozjs_anon_sym_PIPE, 307), (mozjs_anon_sym_PLUS, 307),
     (mozjs_anon_sym_DASH, 307), (mozjs_anon_sym_SLASH, 307),
     (mozjs_anon_sym_PERCENT, 307), (mozjs_anon_sym_STAR_STAR, 307),
     (mozjs_anon_sym_LT_EQ, 311), (mozjs_anon_sym_EQ_EQ, 307),
     (mozjs_anon_sym_EQ_EQ_EQ, 311), (mozjs_anon_sym_BANG_EQ, 307),
     (mozjs_anon_sym_BANG_EQ_EQ, 311), (mozjs_anon_sym_GT_EQ, 311),
     (mozjs_anon_sym_QMARK_QMARK, 307), (mozjs_anon_sym_instanceof, 307),
     (mozjs_anon_sym_PLUS_PLUS, 311), (mozjs_anon_sym_DASH_DASH, 311),
     (mozjs_sym_comment, 5), (mozjs_anon_sym_BQUOTE, 311),
     (mozjs_sym_number, 1090), (mozjs_sym_private_property_identifier, 1090),
     (mozjs_anon_sym_static, 1094), (mozjs_anon_sym_get, 1094),
     (mozjs_anon_sym_set, 1094), (mozjs_sym__automatic_semicolon, 311),
     (mozjs_sym__ternary_qmark, 311), (mozjs_sym_html_comment, 5)]"

definition mozjs_parse_row_364 :: "(TSSymbol \<times> nat) list" where
  "mozjs_parse_row_364 =
    [(mozjs_sym_string, 1545), (mozjs_sym__property_name, 1545),
     (mozjs_sym_computed_property_name, 1545), (mozjs_aux_sym_object_repeat1, 1442),
     (mozjs_aux_sym_object_pattern_repeat1, 1414), (mozjs_sym_identifier, 1094),
     (mozjs_anon_sym_export, 1094), (mozjs_anon_sym_STAR, 1074),
     (mozjs_anon_sym_COMMA, 311), (mozjs_anon_sym_RBRACE, 374),
     (mozjs_anon_sym_let, 1094), (mozjs_anon_sym_await, 1094),
     (mozjs_anon_sym_LPAREN, 949), (mozjs_anon_sym_SEMI, 311),
     (mozjs_anon_sym_in, 307), (mozjs_anon_sym_COLON, 325),
     (mozjs_anon_sym_EQ, 328), (mozjs_anon_sym_LBRACK, 1081),
     (mozjs_anon_sym_LT, 307), (mozjs_anon_sym_GT, 307),
     (mozjs_anon_sym_DOT, 307), (mozjs_anon_sym_DQUOTE, 1084),
     (mozjs_anon_sym_SQUOTE, 1086), (mozjs_anon_sym_async, 1096),
     (mozjs_anon_sym_EQ_GT, 342), (mozjs_sym_optional_chain, 311),
     (mozjs_anon_sym_PLUS_EQ, 344), (mozjs_anon_sym_DASH_EQ, 344),
     (mozjs_anon_sym_STAR_EQ, 344), (mozjs_anon_sym_SLASH_EQ, 344),
     (mozjs_anon_sym_PERCENT_EQ, 344), (mozjs_anon_sym_CARET_EQ, 344),
     (mozjs_anon_sym_AMP_EQ, 344), (mozjs_anon_sym_PIPE_EQ, 344),
     (mozjs_anon_sym_GT_GT_EQ, 344), (mozjs_anon_sym_GT_GT_GT_EQ, 344),
     (mozjs_anon_sym_LT_LT_EQ, 344), (mozjs_anon_sym_STAR_STAR_EQ, 344),
     (mozjs_anon_sym_AMP_AMP_EQ, 344), (mozjs_anon_sym_PIPE_PIPE_EQ, 344),
     (mozjs_anon_sym_QMARK_QMARK_EQ, 344), (mozjs_anon_sym_AMP_AMP, 307),
     (mozjs_anon_sym_PIPE_PIPE, 307), (mozjs_anon_sym_GT_GT, 307),
     (mozjs_anon_sym_GT_GT_GT, 307), (mozjs_anon_sym_LT_LT, 307),
     (mozjs_anon_sym_AMP, 307), (mozjs_anon_sym_CARET, 307),
     (mozjs_anon_sym_PIPE, 307), (mozjs_anon_sym_PLUS, 307),
     (mozjs_anon_sym_DASH, 307), (mozjs_anon_sym_SLASH, 307),
     (mozjs_anon_sym_PERCENT, 307), (mozjs_anon_sym_STAR_STAR, 307),
     (mozjs_anon_sym_LT_EQ, 311), (mozjs_anon_sym_EQ_EQ, 307),
     (mozjs_anon_sym_EQ_EQ_EQ, 311), (mozjs_anon_sym_BANG_EQ, 307),
     (mozjs_anon_sym_BANG_EQ_EQ, 311), (mozjs_anon_sym_GT_EQ, 311),
     (mozjs_anon_sym_QMARK_QMARK, 307), (mozjs_anon_sym_instanceof, 307),
     (mozjs_anon_sym_PLUS_PLUS, 311), (mozjs_anon_sym_DASH_DASH, 311),
     (mozjs_sym_comment, 5), (mozjs_anon_sym_BQUOTE, 311),
     (mozjs_sym_number, 1090), (mozjs_sym_private_property_identifier, 1090),
     (mozjs_anon_sym_static, 1094), (mozjs_anon_sym_get, 1098),
     (mozjs_anon_sym_set, 1098), (mozjs_sym__automatic_semicolon, 311),
     (mozjs_sym__ternary_qmark, 311), (mozjs_sym_html_comment, 5)]"

definition mozjs_parse_row_365 :: "(TSSymbol \<times> nat) list" where
  "mozjs_parse_row_365 =
    [(mozjs_sym_string, 1545), (mozjs_sym__property_name, 1545),
     (mozjs_sym_computed_property_name, 1545), (mozjs_aux_sym_object_repeat1, 1411),
     (mozjs_aux_sym_object_pattern_repeat1, 1414), (mozjs_sym_identifier, 1094),
     (mozjs_anon_sym_export, 1094), (mozjs_anon_sym_STAR, 1074),
     (mozjs_anon_sym_COMMA, 311), (mozjs_anon_sym_RBRACE, 313),
     (mozjs_anon_sym_let, 1094), (mozjs_anon_sym_await, 1094),
     (mozjs_anon_sym_LPAREN, 949), (mozjs_anon_sym_SEMI, 311),
     (mozjs_anon_sym_in, 307), (mozjs_anon_sym_COLON, 325),
     (mozjs_anon_sym_EQ, 328), (mozjs_anon_sym_LBRACK, 1081),
     (mozjs_anon_sym_LT, 307), (mozjs_anon_sym_GT, 307),
     (mozjs_anon_sym_DOT, 307), (mozjs_anon_sym_DQUOTE, 1084),
     (mozjs_anon_sym_SQUOTE, 1086), (mozjs_anon_sym_async, 1096),
     (mozjs_anon_sym_EQ_GT, 342), (mozjs_sym_optional_chain, 311),
     (mozjs_anon_sym_PLUS_EQ, 344), (mozjs_anon_sym_DASH_EQ, 344),
     (mozjs_anon_sym_STAR_EQ, 344), (mozjs_anon_sym_SLASH_EQ, 344),
     (mozjs_anon_sym_PERCENT_EQ, 344), (mozjs_anon_sym_CARET_EQ, 344),
     (mozjs_anon_sym_AMP_EQ, 344), (mozjs_anon_sym_PIPE_EQ, 344),
     (mozjs_anon_sym_GT_GT_EQ, 344), (mozjs_anon_sym_GT_GT_GT_EQ, 344),
     (mozjs_anon_sym_LT_LT_EQ, 344), (mozjs_anon_sym_STAR_STAR_EQ, 344),
     (mozjs_anon_sym_AMP_AMP_EQ, 344), (mozjs_anon_sym_PIPE_PIPE_EQ, 344),
     (mozjs_anon_sym_QMARK_QMARK_EQ, 344), (mozjs_anon_sym_AMP_AMP, 307),
     (mozjs_anon_sym_PIPE_PIPE, 307), (mozjs_anon_sym_GT_GT, 307),
     (mozjs_anon_sym_GT_GT_GT, 307), (mozjs_anon_sym_LT_LT, 307),
     (mozjs_anon_sym_AMP, 307), (mozjs_anon_sym_CARET, 307),
     (mozjs_anon_sym_PIPE, 307), (mozjs_anon_sym_PLUS, 307),
     (mozjs_anon_sym_DASH, 307), (mozjs_anon_sym_SLASH, 307),
     (mozjs_anon_sym_PERCENT, 307), (mozjs_anon_sym_STAR_STAR, 307),
     (mozjs_anon_sym_LT_EQ, 311), (mozjs_anon_sym_EQ_EQ, 307),
     (mozjs_anon_sym_EQ_EQ_EQ, 311), (mozjs_anon_sym_BANG_EQ, 307),
     (mozjs_anon_sym_BANG_EQ_EQ, 311), (mozjs_anon_sym_GT_EQ, 311),
     (mozjs_anon_sym_QMARK_QMARK, 307), (mozjs_anon_sym_instanceof, 307),
     (mozjs_anon_sym_PLUS_PLUS, 311), (mozjs_anon_sym_DASH_DASH, 311),
     (mozjs_sym_comment, 5), (mozjs_anon_sym_BQUOTE, 311),
     (mozjs_sym_number, 1090), (mozjs_sym_private_property_identifier, 1090),
     (mozjs_anon_sym_static, 1094), (mozjs_anon_sym_get, 1098),
     (mozjs_anon_sym_set, 1098), (mozjs_sym__automatic_semicolon, 311),
     (mozjs_sym__ternary_qmark, 311), (mozjs_sym_html_comment, 5)]"

definition mozjs_parse_row_366 :: "(TSSymbol \<times> nat) list" where
  "mozjs_parse_row_366 =
    [(mozjs_sym_formal_parameters, 1848), (mozjs_sym_identifier, 1100),
     (mozjs_anon_sym_export, 1102), (mozjs_anon_sym_STAR, 307),
     (mozjs_anon_sym_COMMA, 311), (mozjs_anon_sym_RBRACE, 311),
     (mozjs_anon_sym_let, 1102), (mozjs_anon_sym_await, 1102),
     (mozjs_anon_sym_LPAREN, 1104), (mozjs_anon_sym_SEMI, 311),
     (mozjs_anon_sym_RPAREN, 311), (mozjs_anon_sym_in, 307),
     (mozjs_anon_sym_COLON, 311), (mozjs_anon_sym_EQ, 471),
     (mozjs_anon_sym_LBRACK, 311), (mozjs_anon_sym_RBRACK, 311),
     (mozjs_anon_sym_LT, 307), (mozjs_anon_sym_GT, 307),
     (mozjs_anon_sym_DOT, 311), (mozjs_anon_sym_async, 1102),
     (mozjs_anon_sym_function, 1107), (mozjs_anon_sym_EQ_GT, 417),
     (mozjs_sym_optional_chain, 311), (mozjs_anon_sym_PLUS_EQ, 344),
     (mozjs_anon_sym_DASH_EQ, 344), (mozjs_anon_sym_STAR_EQ, 344),
     (mozjs_anon_sym_SLASH_EQ, 344), (mozjs_anon_sym_PERCENT_EQ, 344),
     (mozjs_anon_sym_CARET_EQ, 344), (mozjs_anon_sym_AMP_EQ, 344),
     (mozjs_anon_sym_PIPE_EQ, 344), (mozjs_anon_sym_GT_GT_EQ, 344),
     (mozjs_anon_sym_GT_GT_GT_EQ, 344), (mozjs_anon_sym_LT_LT_EQ, 344),
     (mozjs_anon_sym_STAR_STAR_EQ, 344), (mozjs_anon_sym_AMP_AMP_EQ, 344),
     (mozjs_anon_sym_PIPE_PIPE_EQ, 344), (mozjs_anon_sym_QMARK_QMARK_EQ, 344),
     (mozjs_anon_sym_AMP_AMP, 307), (mozjs_anon_sym_PIPE_PIPE, 307),
     (mozjs_anon_sym_GT_GT, 307), (mozjs_anon_sym_GT_GT_GT, 307),
     (mozjs_anon_sym_LT_LT, 307), (mozjs_anon_sym_AMP, 307),
     (mozjs_anon_sym_CARET, 307), (mozjs_anon_sym_PIPE, 307),
     (mozjs_anon_sym_PLUS, 307), (mozjs_anon_sym_DASH, 307),
     (mozjs_anon_sym_SLASH, 307), (mozjs_anon_sym_PERCENT, 307),
     (mozjs_anon_sym_STAR_STAR, 307), (mozjs_anon_sym_LT_EQ, 311),
     (mozjs_anon_sym_EQ_EQ, 307), (mozjs_anon_sym_EQ_EQ_EQ, 311),
     (mozjs_anon_sym_BANG_EQ, 307), (mozjs_anon_sym_BANG_EQ_EQ, 311),
     (mozjs_anon_sym_GT_EQ, 311), (mozjs_anon_sym_QMARK_QMARK, 307),
     (mozjs_anon_sym_instanceof, 307), (mozjs_anon_sym_PLUS_PLUS, 311),
     (mozjs_anon_sym_DASH_DASH, 311), (mozjs_sym_comment, 5),
     (mozjs_anon_sym_BQUOTE, 311), (mozjs_anon_sym_static, 1102),
     (mozjs_anon_sym_get, 1102), (mozjs_anon_sym_set, 1102),
     (mozjs_sym__ternary_qmark, 311), (mozjs_sym_html_comment, 5)]"

definition mozjs_parse_row_367 :: "(TSSymbol \<times> nat) list" where
  "mozjs_parse_row_367 =
    [(mozjs_sym_formal_parameters, 1848), (mozjs_sym_identifier, 1100),
     (mozjs_anon_sym_export, 1102), (mozjs_anon_sym_STAR, 307),
     (mozjs_anon_sym_COMMA, 311), (mozjs_anon_sym_RBRACE, 311),
     (mozjs_anon_sym_let, 1102), (mozjs_anon_sym_await, 1102),
     (mozjs_anon_sym_LPAREN, 1104), (mozjs_anon_sym_SEMI, 311),
     (mozjs_anon_sym_RPAREN, 311), (mozjs_anon_sym_in, 307),
     (mozjs_anon_sym_COLON, 311), (mozjs_anon_sym_EQ, 399),
     (mozjs_anon_sym_LBRACK, 311), (mozjs_anon_sym_RBRACK, 311),
     (mozjs_anon_sym_LT, 307), (mozjs_anon_sym_GT, 307),
     (mozjs_anon_sym_DOT, 311), (mozjs_anon_sym_async, 1102),
     (mozjs_anon_sym_function, 1107), (mozjs_anon_sym_EQ_GT, 417),
     (mozjs_sym_optional_chain, 311), (mozjs_anon_sym_PLUS_EQ, 344),
     (mozjs_anon_sym_DASH_EQ, 344), (mozjs_anon_sym_STAR_EQ, 344),
     (mozjs_anon_sym_SLASH_EQ, 344), (mozjs_anon_sym_PERCENT_EQ, 344),
     (mozjs_anon_sym_CARET_EQ, 344), (mozjs_anon_sym_AMP_EQ, 344),
     (mozjs_anon_sym_PIPE_EQ, 344), (mozjs_anon_sym_GT_GT_EQ, 344),
     (mozjs_anon_sym_GT_GT_GT_EQ, 344), (mozjs_anon_sym_LT_LT_EQ, 344),
     (mozjs_anon_sym_STAR_STAR_EQ, 344), (mozjs_anon_sym_AMP_AMP_EQ, 344),
     (mozjs_anon_sym_PIPE_PIPE_EQ, 344), (mozjs_anon_sym_QMARK_QMARK_EQ, 344),
     (mozjs_anon_sym_AMP_AMP, 307), (mozjs_anon_sym_PIPE_PIPE, 307),
     (mozjs_anon_sym_GT_GT, 307), (mozjs_anon_sym_GT_GT_GT, 307),
     (mozjs_anon_sym_LT_LT, 307), (mozjs_anon_sym_AMP, 307),
     (mozjs_anon_sym_CARET, 307), (mozjs_anon_sym_PIPE, 307),
     (mozjs_anon_sym_PLUS, 307), (mozjs_anon_sym_DASH, 307),
     (mozjs_anon_sym_SLASH, 307), (mozjs_anon_sym_PERCENT, 307),
     (mozjs_anon_sym_STAR_STAR, 307), (mozjs_anon_sym_LT_EQ, 311),
     (mozjs_anon_sym_EQ_EQ, 307), (mozjs_anon_sym_EQ_EQ_EQ, 311),
     (mozjs_anon_sym_BANG_EQ, 307), (mozjs_anon_sym_BANG_EQ_EQ, 311),
     (mozjs_anon_sym_GT_EQ, 311), (mozjs_anon_sym_QMARK_QMARK, 307),
     (mozjs_anon_sym_instanceof, 307), (mozjs_anon_sym_PLUS_PLUS, 311),
     (mozjs_anon_sym_DASH_DASH, 311), (mozjs_sym_comment, 5),
     (mozjs_anon_sym_BQUOTE, 311), (mozjs_anon_sym_static, 1102),
     (mozjs_anon_sym_get, 1102), (mozjs_anon_sym_set, 1102),
     (mozjs_sym__ternary_qmark, 311), (mozjs_sym_html_comment, 5)]"

definition mozjs_parse_row_368 :: "(TSSymbol \<times> nat) list" where
  "mozjs_parse_row_368 =
    [(mozjs_sym_catch_clause, 387), (mozjs_sym_finally_clause, 487),
     (ts_builtin_sym_end, 1109), (mozjs_sym_identifier, 1111),
     (mozjs_anon_sym_export, 1111), (mozjs_anon_sym_default, 1111),
     (mozjs_anon_sym_LBRACE, 1109), (mozjs_anon_sym_RBRACE, 1109),
     (mozjs_anon_sym_import, 1111), (mozjs_anon_sym_with, 1111),
     (mozjs_anon_sym_var, 1111), (mozjs_anon_sym_let, 1111),
     (mozjs_anon_sym_const, 1111), (mozjs_anon_sym_using, 1111),
     (mozjs_anon_sym_await, 1111), (mozjs_anon_sym_else, 1111),
     (mozjs_anon_sym_if, 1111), (mozjs_anon_sym_switch, 1111),
     (mozjs_anon_sym_for, 1111), (mozjs_anon_sym_LPAREN, 1109),
     (mozjs_anon_sym_SEMI, 1109), (mozjs_anon_sym_while, 1111),
     (mozjs_anon_sym_do, 1111), (mozjs_anon_sym_try, 1111),
     (mozjs_anon_sym_break, 1111), (mozjs_anon_sym_continue, 1111),
     (mozjs_anon_sym_debugger, 1111), (mozjs_anon_sym_return, 1111),
     (mozjs_anon_sym_throw, 1111), (mozjs_anon_sym_case, 1111),
     (mozjs_anon_sym_catch, 1113), (mozjs_anon_sym_finally, 1115),
     (mozjs_anon_sym_yield, 1111), (mozjs_anon_sym_LBRACK, 1109),
     (mozjs_anon_sym_LT, 1109), (mozjs_anon_sym_DQUOTE, 1109),
     (mozjs_anon_sym_SQUOTE, 1109), (mozjs_anon_sym_class, 1111),
     (mozjs_anon_sym_async, 1111), (mozjs_anon_sym_function, 1111),
     (mozjs_anon_sym_new, 1111), (mozjs_anon_sym_PLUS, 1111),
     (mozjs_anon_sym_DASH, 1111), (mozjs_anon_sym_SLASH, 1111),
     (mozjs_anon_sym_BANG, 1109), (mozjs_anon_sym_TILDE, 1109),
     (mozjs_anon_sym_typeof, 1111), (mozjs_anon_sym_void, 1111),
     (mozjs_anon_sym_delete, 1111), (mozjs_anon_sym_PLUS_PLUS, 1109),
     (mozjs_anon_sym_DASH_DASH, 1109), (mozjs_sym_comment, 5),
     (mozjs_anon_sym_BQUOTE, 1109), (mozjs_sym_number, 1109),
     (mozjs_sym_private_property_identifier, 1111), (mozjs_sym_this, 1111),
     (mozjs_sym_super, 1111), (mozjs_sym_true, 1111),
     (mozjs_sym_false, 1111), (mozjs_sym_null, 1111),
     (mozjs_sym_undefined, 1111), (mozjs_anon_sym_AT, 1109),
     (mozjs_anon_sym_static, 1111), (mozjs_anon_sym_get, 1111),
     (mozjs_anon_sym_set, 1111), (mozjs_sym_preproc, 1109),
     (mozjs_sym_html_comment, 5)]"

definition mozjs_parse_row_369 :: "(TSSymbol \<times> nat) list" where
  "mozjs_parse_row_369 =
    [(ts_builtin_sym_end, 703), (mozjs_sym_identifier, 705),
     (mozjs_anon_sym_export, 705), (mozjs_anon_sym_default, 705),
     (mozjs_anon_sym_LBRACE, 703), (mozjs_anon_sym_COMMA, 703),
     (mozjs_anon_sym_RBRACE, 703), (mozjs_anon_sym_import, 705),
     (mozjs_anon_sym_with, 705), (mozjs_anon_sym_var, 705),
     (mozjs_anon_sym_let, 705), (mozjs_anon_sym_const, 705),
     (mozjs_anon_sym_using, 705), (mozjs_anon_sym_await, 705),
     (mozjs_anon_sym_else, 705), (mozjs_anon_sym_if, 705),
     (mozjs_anon_sym_switch, 705), (mozjs_anon_sym_for, 705),
     (mozjs_anon_sym_LPAREN, 703), (mozjs_anon_sym_SEMI, 703),
     (mozjs_anon_sym_while, 705), (mozjs_anon_sym_do, 705),
     (mozjs_anon_sym_try, 705), (mozjs_anon_sym_break, 705),
     (mozjs_anon_sym_continue, 705), (mozjs_anon_sym_debugger, 705),
     (mozjs_anon_sym_return, 705), (mozjs_anon_sym_throw, 705),
     (mozjs_anon_sym_case, 705), (mozjs_anon_sym_catch, 705),
     (mozjs_anon_sym_finally, 705), (mozjs_anon_sym_yield, 705),
     (mozjs_anon_sym_LBRACK, 703), (mozjs_anon_sym_LT, 703),
     (mozjs_anon_sym_DQUOTE, 703), (mozjs_anon_sym_SQUOTE, 703),
     (mozjs_anon_sym_class, 705), (mozjs_anon_sym_async, 705),
     (mozjs_anon_sym_function, 705), (mozjs_anon_sym_new, 705),
     (mozjs_anon_sym_PLUS, 705), (mozjs_anon_sym_DASH, 705),
     (mozjs_anon_sym_SLASH, 705), (mozjs_anon_sym_BANG, 703),
     (mozjs_anon_sym_TILDE, 703), (mozjs_anon_sym_typeof, 705),
     (mozjs_anon_sym_void, 705), (mozjs_anon_sym_delete, 705),
     (mozjs_anon_sym_PLUS_PLUS, 703), (mozjs_anon_sym_DASH_DASH, 703),
     (mozjs_sym_comment, 5), (mozjs_anon_sym_BQUOTE, 703),
     (mozjs_sym_number, 703), (mozjs_sym_private_property_identifier, 705),
     (mozjs_sym_this, 705), (mozjs_sym_super, 705),
     (mozjs_sym_true, 705), (mozjs_sym_false, 705),
     (mozjs_sym_null, 705), (mozjs_sym_undefined, 705),
     (mozjs_anon_sym_AT, 703), (mozjs_anon_sym_static, 705),
     (mozjs_anon_sym_get, 705), (mozjs_anon_sym_set, 705),
     (mozjs_sym_preproc, 703), (mozjs_sym__automatic_semicolon, 1117),
     (mozjs_sym_html_comment, 5)]"

definition mozjs_parse_row_370 :: "(TSSymbol \<times> nat) list" where
  "mozjs_parse_row_370 =
    [(ts_builtin_sym_end, 697), (mozjs_sym_identifier, 699),
     (mozjs_anon_sym_export, 699), (mozjs_anon_sym_default, 699),
     (mozjs_anon_sym_LBRACE, 697), (mozjs_anon_sym_COMMA, 697),
     (mozjs_anon_sym_RBRACE, 697), (mozjs_anon_sym_import, 699),
     (mozjs_anon_sym_with, 699), (mozjs_anon_sym_var, 699),
     (mozjs_anon_sym_let, 699), (mozjs_anon_sym_const, 699),
     (mozjs_anon_sym_using, 699), (mozjs_anon_sym_await, 699),
     (mozjs_anon_sym_else, 699), (mozjs_anon_sym_if, 699),
     (mozjs_anon_sym_switch, 699), (mozjs_anon_sym_for, 699),
     (mozjs_anon_sym_LPAREN, 697), (mozjs_anon_sym_SEMI, 697),
     (mozjs_anon_sym_while, 699), (mozjs_anon_sym_do, 699),
     (mozjs_anon_sym_try, 699), (mozjs_anon_sym_break, 699),
     (mozjs_anon_sym_continue, 699), (mozjs_anon_sym_debugger, 699),
     (mozjs_anon_sym_return, 699), (mozjs_anon_sym_throw, 699),
     (mozjs_anon_sym_case, 699), (mozjs_anon_sym_catch, 699),
     (mozjs_anon_sym_finally, 699), (mozjs_anon_sym_yield, 699),
     (mozjs_anon_sym_LBRACK, 697), (mozjs_anon_sym_LT, 697),
     (mozjs_anon_sym_DQUOTE, 697), (mozjs_anon_sym_SQUOTE, 697),
     (mozjs_anon_sym_class, 699), (mozjs_anon_sym_async, 699),
     (mozjs_anon_sym_function, 699), (mozjs_anon_sym_new, 699),
     (mozjs_anon_sym_PLUS, 699), (mozjs_anon_sym_DASH, 699),
     (mozjs_anon_sym_SLASH, 699), (mozjs_anon_sym_BANG, 697),
     (mozjs_anon_sym_TILDE, 697), (mozjs_anon_sym_typeof, 699),
     (mozjs_anon_sym_void, 699), (mozjs_anon_sym_delete, 699),
     (mozjs_anon_sym_PLUS_PLUS, 697), (mozjs_anon_sym_DASH_DASH, 697),
     (mozjs_sym_comment, 5), (mozjs_anon_sym_BQUOTE, 697),
     (mozjs_sym_number, 697), (mozjs_sym_private_property_identifier, 699),
     (mozjs_sym_this, 699), (mozjs_sym_super, 699),
     (mozjs_sym_true, 699), (mozjs_sym_false, 699),
     (mozjs_sym_null, 699), (mozjs_sym_undefined, 699),
     (mozjs_anon_sym_AT, 697), (mozjs_anon_sym_static, 699),
     (mozjs_anon_sym_get, 699), (mozjs_anon_sym_set, 699),
     (mozjs_sym_preproc, 697), (mozjs_sym__automatic_semicolon, 727),
     (mozjs_sym_html_comment, 5)]"

definition mozjs_parse_row_371 :: "(TSSymbol \<times> nat) list" where
  "mozjs_parse_row_371 =
    [(mozjs_sym_variable_declarator, 1337), (mozjs_sym_object_pattern, 1283),
     (mozjs_sym_array_pattern, 1283), (mozjs_sym__destructuring_pattern, 1283),
     (mozjs_aux_sym_object_repeat1, 1442), (mozjs_aux_sym_object_pattern_repeat1, 1414),
     (mozjs_sym_identifier, 1119), (mozjs_anon_sym_STAR, 307),
     (mozjs_anon_sym_LBRACE, 1121), (mozjs_anon_sym_COMMA, 311),
     (mozjs_anon_sym_RBRACE, 372), (mozjs_anon_sym_of, 1123),
     (mozjs_anon_sym_LPAREN, 949), (mozjs_anon_sym_SEMI, 311),
     (mozjs_anon_sym_in, 307), (mozjs_anon_sym_COLON, 325),
     (mozjs_anon_sym_EQ, 328), (mozjs_anon_sym_LBRACK, 1125),
     (mozjs_anon_sym_LT, 307), (mozjs_anon_sym_GT, 307),
     (mozjs_anon_sym_DOT, 311), (mozjs_anon_sym_EQ_GT, 342),
     (mozjs_sym_optional_chain, 311), (mozjs_anon_sym_PLUS_EQ, 344),
     (mozjs_anon_sym_DASH_EQ, 344), (mozjs_anon_sym_STAR_EQ, 344),
     (mozjs_anon_sym_SLASH_EQ, 344), (mozjs_anon_sym_PERCENT_EQ, 344),
     (mozjs_anon_sym_CARET_EQ, 344), (mozjs_anon_sym_AMP_EQ, 344),
     (mozjs_anon_sym_PIPE_EQ, 344), (mozjs_anon_sym_GT_GT_EQ, 344),
     (mozjs_anon_sym_GT_GT_GT_EQ, 344), (mozjs_anon_sym_LT_LT_EQ, 344),
     (mozjs_anon_sym_STAR_STAR_EQ, 344), (mozjs_anon_sym_AMP_AMP_EQ, 344),
     (mozjs_anon_sym_PIPE_PIPE_EQ, 344), (mozjs_anon_sym_QMARK_QMARK_EQ, 344),
     (mozjs_anon_sym_AMP_AMP, 307), (mozjs_anon_sym_PIPE_PIPE, 307),
     (mozjs_anon_sym_GT_GT, 307), (mozjs_anon_sym_GT_GT_GT, 307),
     (mozjs_anon_sym_LT_LT, 307), (mozjs_anon_sym_AMP, 307),
     (mozjs_anon_sym_CARET, 307), (mozjs_anon_sym_PIPE, 307),
     (mozjs_anon_sym_PLUS, 307), (mozjs_anon_sym_DASH, 307),
     (mozjs_anon_sym_SLASH, 307), (mozjs_anon_sym_PERCENT, 307),
     (mozjs_anon_sym_STAR_STAR, 307), (mozjs_anon_sym_LT_EQ, 311),
     (mozjs_anon_sym_EQ_EQ, 307), (mozjs_anon_sym_EQ_EQ_EQ, 311),
     (mozjs_anon_sym_BANG_EQ, 307), (mozjs_anon_sym_BANG_EQ_EQ, 311),
     (mozjs_anon_sym_GT_EQ, 311), (mozjs_anon_sym_QMARK_QMARK, 307),
     (mozjs_anon_sym_instanceof, 307), (mozjs_anon_sym_PLUS_PLUS, 311),
     (mozjs_anon_sym_DASH_DASH, 311), (mozjs_sym_comment, 5),
     (mozjs_anon_sym_BQUOTE, 311), (mozjs_sym__automatic_semicolon, 311),
     (mozjs_sym__ternary_qmark, 311), (mozjs_sym_html_comment, 5)]"

definition mozjs_parse_row_372 :: "(TSSymbol \<times> nat) list" where
  "mozjs_parse_row_372 =
    [(mozjs_sym_formal_parameters, 1832), (mozjs_sym_identifier, 1127),
     (mozjs_anon_sym_export, 1129), (mozjs_anon_sym_STAR, 307),
     (mozjs_anon_sym_COMMA, 536), (mozjs_anon_sym_RBRACE, 536),
     (mozjs_anon_sym_let, 1129), (mozjs_anon_sym_await, 1129),
     (mozjs_anon_sym_LPAREN, 1104), (mozjs_anon_sym_RPAREN, 536),
     (mozjs_anon_sym_in, 307), (mozjs_anon_sym_EQ, 471),
     (mozjs_anon_sym_LBRACK, 311), (mozjs_anon_sym_RBRACK, 536),
     (mozjs_anon_sym_LT, 307), (mozjs_anon_sym_GT, 307),
     (mozjs_anon_sym_DOT, 311), (mozjs_anon_sym_async, 1129),
     (mozjs_anon_sym_function, 1107), (mozjs_anon_sym_EQ_GT, 534),
     (mozjs_sym_optional_chain, 311), (mozjs_anon_sym_PLUS_EQ, 344),
     (mozjs_anon_sym_DASH_EQ, 344), (mozjs_anon_sym_STAR_EQ, 344),
     (mozjs_anon_sym_SLASH_EQ, 344), (mozjs_anon_sym_PERCENT_EQ, 344),
     (mozjs_anon_sym_CARET_EQ, 344), (mozjs_anon_sym_AMP_EQ, 344),
     (mozjs_anon_sym_PIPE_EQ, 344), (mozjs_anon_sym_GT_GT_EQ, 344),
     (mozjs_anon_sym_GT_GT_GT_EQ, 344), (mozjs_anon_sym_LT_LT_EQ, 344),
     (mozjs_anon_sym_STAR_STAR_EQ, 344), (mozjs_anon_sym_AMP_AMP_EQ, 344),
     (mozjs_anon_sym_PIPE_PIPE_EQ, 344), (mozjs_anon_sym_QMARK_QMARK_EQ, 344),
     (mozjs_anon_sym_AMP_AMP, 307), (mozjs_anon_sym_PIPE_PIPE, 307),
     (mozjs_anon_sym_GT_GT, 307), (mozjs_anon_sym_GT_GT_GT, 307),
     (mozjs_anon_sym_LT_LT, 307), (mozjs_anon_sym_AMP, 307),
     (mozjs_anon_sym_CARET, 307), (mozjs_anon_sym_PIPE, 307),
     (mozjs_anon_sym_PLUS, 307), (mozjs_anon_sym_DASH, 307),
     (mozjs_anon_sym_SLASH, 307), (mozjs_anon_sym_PERCENT, 307),
     (mozjs_anon_sym_STAR_STAR, 307), (mozjs_anon_sym_LT_EQ, 311),
     (mozjs_anon_sym_EQ_EQ, 307), (mozjs_anon_sym_EQ_EQ_EQ, 311),
     (mozjs_anon_sym_BANG_EQ, 307), (mozjs_anon_sym_BANG_EQ_EQ, 311),
     (mozjs_anon_sym_GT_EQ, 311), (mozjs_anon_sym_QMARK_QMARK, 307),
     (mozjs_anon_sym_instanceof, 307), (mozjs_anon_sym_PLUS_PLUS, 311),
     (mozjs_anon_sym_DASH_DASH, 311), (mozjs_sym_comment, 5),
     (mozjs_anon_sym_BQUOTE, 311), (mozjs_anon_sym_static, 1129),
     (mozjs_anon_sym_get, 1129), (mozjs_anon_sym_set, 1129),
     (mozjs_sym__ternary_qmark, 311), (mozjs_sym_html_comment, 5)]"

definition mozjs_parse_row_373 :: "(TSSymbol \<times> nat) list" where
  "mozjs_parse_row_373 =
    [(mozjs_sym_formal_parameters, 1848), (mozjs_sym_identifier, 1100),
     (mozjs_anon_sym_export, 1102), (mozjs_anon_sym_STAR, 307),
     (mozjs_anon_sym_COMMA, 538), (mozjs_anon_sym_RBRACE, 538),
     (mozjs_anon_sym_let, 1102), (mozjs_anon_sym_await, 1102),
     (mozjs_anon_sym_LPAREN, 1104), (mozjs_anon_sym_RPAREN, 538),
     (mozjs_anon_sym_in, 307), (mozjs_anon_sym_EQ, 541),
     (mozjs_anon_sym_LBRACK, 311), (mozjs_anon_sym_RBRACK, 538),
     (mozjs_anon_sym_LT, 307), (mozjs_anon_sym_GT, 307),
     (mozjs_anon_sym_DOT, 311), (mozjs_anon_sym_async, 1102),
     (mozjs_anon_sym_function, 1107), (mozjs_anon_sym_EQ_GT, 417),
     (mozjs_sym_optional_chain, 311), (mozjs_anon_sym_PLUS_EQ, 344),
     (mozjs_anon_sym_DASH_EQ, 344), (mozjs_anon_sym_STAR_EQ, 344),
     (mozjs_anon_sym_SLASH_EQ, 344), (mozjs_anon_sym_PERCENT_EQ, 344),
     (mozjs_anon_sym_CARET_EQ, 344), (mozjs_anon_sym_AMP_EQ, 344),
     (mozjs_anon_sym_PIPE_EQ, 344), (mozjs_anon_sym_GT_GT_EQ, 344),
     (mozjs_anon_sym_GT_GT_GT_EQ, 344), (mozjs_anon_sym_LT_LT_EQ, 344),
     (mozjs_anon_sym_STAR_STAR_EQ, 344), (mozjs_anon_sym_AMP_AMP_EQ, 344),
     (mozjs_anon_sym_PIPE_PIPE_EQ, 344), (mozjs_anon_sym_QMARK_QMARK_EQ, 344),
     (mozjs_anon_sym_AMP_AMP, 307), (mozjs_anon_sym_PIPE_PIPE, 307),
     (mozjs_anon_sym_GT_GT, 307), (mozjs_anon_sym_GT_GT_GT, 307),
     (mozjs_anon_sym_LT_LT, 307), (mozjs_anon_sym_AMP, 307),
     (mozjs_anon_sym_CARET, 307), (mozjs_anon_sym_PIPE, 307),
     (mozjs_anon_sym_PLUS, 307), (mozjs_anon_sym_DASH, 307),
     (mozjs_anon_sym_SLASH, 307), (mozjs_anon_sym_PERCENT, 307),
     (mozjs_anon_sym_STAR_STAR, 307), (mozjs_anon_sym_LT_EQ, 311),
     (mozjs_anon_sym_EQ_EQ, 307), (mozjs_anon_sym_EQ_EQ_EQ, 311),
     (mozjs_anon_sym_BANG_EQ, 307), (mozjs_anon_sym_BANG_EQ_EQ, 311),
     (mozjs_anon_sym_GT_EQ, 311), (mozjs_anon_sym_QMARK_QMARK, 307),
     (mozjs_anon_sym_instanceof, 307), (mozjs_anon_sym_PLUS_PLUS, 311),
     (mozjs_anon_sym_DASH_DASH, 311), (mozjs_sym_comment, 5),
     (mozjs_anon_sym_BQUOTE, 311), (mozjs_anon_sym_static, 1102),
     (mozjs_anon_sym_get, 1102), (mozjs_anon_sym_set, 1102),
     (mozjs_sym__ternary_qmark, 311), (mozjs_sym_html_comment, 5)]"

definition mozjs_parse_row_374 :: "(TSSymbol \<times> nat) list" where
  "mozjs_parse_row_374 =
    [(mozjs_sym_formal_parameters, 1813), (mozjs_sym_identifier, 1131),
     (mozjs_anon_sym_export, 1133), (mozjs_anon_sym_STAR, 307),
     (mozjs_anon_sym_COMMA, 311), (mozjs_anon_sym_RBRACE, 311),
     (mozjs_anon_sym_let, 1133), (mozjs_anon_sym_await, 1133),
     (mozjs_anon_sym_LPAREN, 1104), (mozjs_anon_sym_SEMI, 311),
     (mozjs_anon_sym_in, 307), (mozjs_anon_sym_EQ, 471),
     (mozjs_anon_sym_LBRACK, 311), (mozjs_anon_sym_LT, 307),
     (mozjs_anon_sym_GT, 307), (mozjs_anon_sym_DOT, 311),
     (mozjs_anon_sym_async, 1133), (mozjs_anon_sym_function, 1135),
     (mozjs_anon_sym_EQ_GT, 342), (mozjs_sym_optional_chain, 311),
     (mozjs_anon_sym_PLUS_EQ, 344), (mozjs_anon_sym_DASH_EQ, 344),
     (mozjs_anon_sym_STAR_EQ, 344), (mozjs_anon_sym_SLASH_EQ, 344),
     (mozjs_anon_sym_PERCENT_EQ, 344), (mozjs_anon_sym_CARET_EQ, 344),
     (mozjs_anon_sym_AMP_EQ, 344), (mozjs_anon_sym_PIPE_EQ, 344),
     (mozjs_anon_sym_GT_GT_EQ, 344), (mozjs_anon_sym_GT_GT_GT_EQ, 344),
     (mozjs_anon_sym_LT_LT_EQ, 344), (mozjs_anon_sym_STAR_STAR_EQ, 344),
     (mozjs_anon_sym_AMP_AMP_EQ, 344), (mozjs_anon_sym_PIPE_PIPE_EQ, 344),
     (mozjs_anon_sym_QMARK_QMARK_EQ, 344), (mozjs_anon_sym_AMP_AMP, 307),
     (mozjs_anon_sym_PIPE_PIPE, 307), (mozjs_anon_sym_GT_GT, 307),
     (mozjs_anon_sym_GT_GT_GT, 307), (mozjs_anon_sym_LT_LT, 307),
     (mozjs_anon_sym_AMP, 307), (mozjs_anon_sym_CARET, 307),
     (mozjs_anon_sym_PIPE, 307), (mozjs_anon_sym_PLUS, 307),
     (mozjs_anon_sym_DASH, 307), (mozjs_anon_sym_SLASH, 307),
     (mozjs_anon_sym_PERCENT, 307), (mozjs_anon_sym_STAR_STAR, 307),
     (mozjs_anon_sym_LT_EQ, 311), (mozjs_anon_sym_EQ_EQ, 307),
     (mozjs_anon_sym_EQ_EQ_EQ, 311), (mozjs_anon_sym_BANG_EQ, 307),
     (mozjs_anon_sym_BANG_EQ_EQ, 311), (mozjs_anon_sym_GT_EQ, 311),
     (mozjs_anon_sym_QMARK_QMARK, 307), (mozjs_anon_sym_instanceof, 307),
     (mozjs_anon_sym_PLUS_PLUS, 311), (mozjs_anon_sym_DASH_DASH, 311),
     (mozjs_sym_comment, 5), (mozjs_anon_sym_BQUOTE, 311),
     (mozjs_anon_sym_static, 1133), (mozjs_anon_sym_get, 1133),
     (mozjs_anon_sym_set, 1133), (mozjs_sym__automatic_semicolon, 311),
     (mozjs_sym__ternary_qmark, 311), (mozjs_sym_html_comment, 5)]"

definition mozjs_parse_row_375 :: "(TSSymbol \<times> nat) list" where
  "mozjs_parse_row_375 =
    [(mozjs_sym_variable_declarator, 1337), (mozjs_sym_object_pattern, 1283),
     (mozjs_sym_array_pattern, 1283), (mozjs_sym__destructuring_pattern, 1283),
     (mozjs_aux_sym_object_repeat1, 1442), (mozjs_aux_sym_object_pattern_repeat1, 1414),
     (mozjs_sym_identifier, 1119), (mozjs_anon_sym_STAR, 307),
     (mozjs_anon_sym_LBRACE, 1121), (mozjs_anon_sym_COMMA, 311),
     (mozjs_anon_sym_RBRACE, 374), (mozjs_anon_sym_of, 1123),
     (mozjs_anon_sym_LPAREN, 949), (mozjs_anon_sym_SEMI, 311),
     (mozjs_anon_sym_in, 307), (mozjs_anon_sym_COLON, 325),
     (mozjs_anon_sym_EQ, 328), (mozjs_anon_sym_LBRACK, 1125),
     (mozjs_anon_sym_LT, 307), (mozjs_anon_sym_GT, 307),
     (mozjs_anon_sym_DOT, 311), (mozjs_anon_sym_EQ_GT, 342),
     (mozjs_sym_optional_chain, 311), (mozjs_anon_sym_PLUS_EQ, 344),
     (mozjs_anon_sym_DASH_EQ, 344), (mozjs_anon_sym_STAR_EQ, 344),
     (mozjs_anon_sym_SLASH_EQ, 344), (mozjs_anon_sym_PERCENT_EQ, 344),
     (mozjs_anon_sym_CARET_EQ, 344), (mozjs_anon_sym_AMP_EQ, 344),
     (mozjs_anon_sym_PIPE_EQ, 344), (mozjs_anon_sym_GT_GT_EQ, 344),
     (mozjs_anon_sym_GT_GT_GT_EQ, 344), (mozjs_anon_sym_LT_LT_EQ, 344),
     (mozjs_anon_sym_STAR_STAR_EQ, 344), (mozjs_anon_sym_AMP_AMP_EQ, 344),
     (mozjs_anon_sym_PIPE_PIPE_EQ, 344), (mozjs_anon_sym_QMARK_QMARK_EQ, 344),
     (mozjs_anon_sym_AMP_AMP, 307), (mozjs_anon_sym_PIPE_PIPE, 307),
     (mozjs_anon_sym_GT_GT, 307), (mozjs_anon_sym_GT_GT_GT, 307),
     (mozjs_anon_sym_LT_LT, 307), (mozjs_anon_sym_AMP, 307),
     (mozjs_anon_sym_CARET, 307), (mozjs_anon_sym_PIPE, 307),
     (mozjs_anon_sym_PLUS, 307), (mozjs_anon_sym_DASH, 307),
     (mozjs_anon_sym_SLASH, 307), (mozjs_anon_sym_PERCENT, 307),
     (mozjs_anon_sym_STAR_STAR, 307), (mozjs_anon_sym_LT_EQ, 311),
     (mozjs_anon_sym_EQ_EQ, 307), (mozjs_anon_sym_EQ_EQ_EQ, 311),
     (mozjs_anon_sym_BANG_EQ, 307), (mozjs_anon_sym_BANG_EQ_EQ, 311),
     (mozjs_anon_sym_GT_EQ, 311), (mozjs_anon_sym_QMARK_QMARK, 307),
     (mozjs_anon_sym_instanceof, 307), (mozjs_anon_sym_PLUS_PLUS, 311),
     (mozjs_anon_sym_DASH_DASH, 311), (mozjs_sym_comment, 5),
     (mozjs_anon_sym_BQUOTE, 311), (mozjs_sym__automatic_semicolon, 311),
     (mozjs_sym__ternary_qmark, 311), (mozjs_sym_html_comment, 5)]"

definition mozjs_parse_row_376 :: "(TSSymbol \<times> nat) list" where
  "mozjs_parse_row_376 =
    [(mozjs_sym_formal_parameters, 1813), (mozjs_sym_identifier, 1131),
     (mozjs_anon_sym_export, 1133), (mozjs_anon_sym_STAR, 307),
     (mozjs_anon_sym_COMMA, 311), (mozjs_anon_sym_let, 1133),
     (mozjs_anon_sym_await, 1133), (mozjs_anon_sym_LPAREN, 1104),
     (mozjs_anon_sym_SEMI, 311), (mozjs_anon_sym_in, 307),
     (mozjs_anon_sym_COLON, 497), (mozjs_anon_sym_EQ, 499),
     (mozjs_anon_sym_LBRACK, 311), (mozjs_anon_sym_LT, 307),
     (mozjs_anon_sym_GT, 307), (mozjs_anon_sym_DOT, 311),
     (mozjs_anon_sym_async, 1133), (mozjs_anon_sym_function, 1088),
     (mozjs_anon_sym_EQ_GT, 342), (mozjs_sym_optional_chain, 311),
     (mozjs_anon_sym_PLUS_EQ, 344), (mozjs_anon_sym_DASH_EQ, 344),
     (mozjs_anon_sym_STAR_EQ, 344), (mozjs_anon_sym_SLASH_EQ, 344),
     (mozjs_anon_sym_PERCENT_EQ, 344), (mozjs_anon_sym_CARET_EQ, 344),
     (mozjs_anon_sym_AMP_EQ, 344), (mozjs_anon_sym_PIPE_EQ, 344),
     (mozjs_anon_sym_GT_GT_EQ, 344), (mozjs_anon_sym_GT_GT_GT_EQ, 344),
     (mozjs_anon_sym_LT_LT_EQ, 344), (mozjs_anon_sym_STAR_STAR_EQ, 344),
     (mozjs_anon_sym_AMP_AMP_EQ, 344), (mozjs_anon_sym_PIPE_PIPE_EQ, 344),
     (mozjs_anon_sym_QMARK_QMARK_EQ, 344), (mozjs_anon_sym_AMP_AMP, 307),
     (mozjs_anon_sym_PIPE_PIPE, 307), (mozjs_anon_sym_GT_GT, 307),
     (mozjs_anon_sym_GT_GT_GT, 307), (mozjs_anon_sym_LT_LT, 307),
     (mozjs_anon_sym_AMP, 307), (mozjs_anon_sym_CARET, 307),
     (mozjs_anon_sym_PIPE, 307), (mozjs_anon_sym_PLUS, 307),
     (mozjs_anon_sym_DASH, 307), (mozjs_anon_sym_SLASH, 307),
     (mozjs_anon_sym_PERCENT, 307), (mozjs_anon_sym_STAR_STAR, 307),
     (mozjs_anon_sym_LT_EQ, 311), (mozjs_anon_sym_EQ_EQ, 307),
     (mozjs_anon_sym_EQ_EQ_EQ, 311), (mozjs_anon_sym_BANG_EQ, 307),
     (mozjs_anon_sym_BANG_EQ_EQ, 311), (mozjs_anon_sym_GT_EQ, 311),
     (mozjs_anon_sym_QMARK_QMARK, 307), (mozjs_anon_sym_instanceof, 307),
     (mozjs_anon_sym_PLUS_PLUS, 311), (mozjs_anon_sym_DASH_DASH, 311),
     (mozjs_sym_comment, 5), (mozjs_anon_sym_BQUOTE, 311),
     (mozjs_anon_sym_static, 1133), (mozjs_anon_sym_get, 1133),
     (mozjs_anon_sym_set, 1133), (mozjs_sym__automatic_semicolon, 311),
     (mozjs_sym__ternary_qmark, 311), (mozjs_sym_html_comment, 5)]"

definition mozjs_parse_row_377 :: "(TSSymbol \<times> nat) list" where
  "mozjs_parse_row_377 =
    [(mozjs_sym_formal_parameters, 1822), (mozjs_sym_identifier, 1137),
     (mozjs_anon_sym_export, 1139), (mozjs_anon_sym_STAR, 307),
     (mozjs_anon_sym_COMMA, 311), (mozjs_anon_sym_let, 1139),
     (mozjs_anon_sym_await, 1139), (mozjs_anon_sym_of, 307),
     (mozjs_anon_sym_LPAREN, 1104), (mozjs_anon_sym_SEMI, 311),
     (mozjs_anon_sym_in, 307), (mozjs_anon_sym_EQ, 471),
     (mozjs_anon_sym_LBRACK, 311), (mozjs_anon_sym_LT, 307),
     (mozjs_anon_sym_GT, 307), (mozjs_anon_sym_DOT, 311),
     (mozjs_anon_sym_async, 1139), (mozjs_anon_sym_function, 1135),
     (mozjs_anon_sym_EQ_GT, 563), (mozjs_sym_optional_chain, 311),
     (mozjs_anon_sym_PLUS_EQ, 344), (mozjs_anon_sym_DASH_EQ, 344),
     (mozjs_anon_sym_STAR_EQ, 344), (mozjs_anon_sym_SLASH_EQ, 344),
     (mozjs_anon_sym_PERCENT_EQ, 344), (mozjs_anon_sym_CARET_EQ, 344),
     (mozjs_anon_sym_AMP_EQ, 344), (mozjs_anon_sym_PIPE_EQ, 344),
     (mozjs_anon_sym_GT_GT_EQ, 344), (mozjs_anon_sym_GT_GT_GT_EQ, 344),
     (mozjs_anon_sym_LT_LT_EQ, 344), (mozjs_anon_sym_STAR_STAR_EQ, 344),
     (mozjs_anon_sym_AMP_AMP_EQ, 344), (mozjs_anon_sym_PIPE_PIPE_EQ, 344),
     (mozjs_anon_sym_QMARK_QMARK_EQ, 344), (mozjs_anon_sym_AMP_AMP, 307),
     (mozjs_anon_sym_PIPE_PIPE, 307), (mozjs_anon_sym_GT_GT, 307),
     (mozjs_anon_sym_GT_GT_GT, 307), (mozjs_anon_sym_LT_LT, 307),
     (mozjs_anon_sym_AMP, 307), (mozjs_anon_sym_CARET, 307),
     (mozjs_anon_sym_PIPE, 307), (mozjs_anon_sym_PLUS, 307),
     (mozjs_anon_sym_DASH, 307), (mozjs_anon_sym_SLASH, 307),
     (mozjs_anon_sym_PERCENT, 307), (mozjs_anon_sym_STAR_STAR, 307),
     (mozjs_anon_sym_LT_EQ, 311), (mozjs_anon_sym_EQ_EQ, 307),
     (mozjs_anon_sym_EQ_EQ_EQ, 311), (mozjs_anon_sym_BANG_EQ, 307),
     (mozjs_anon_sym_BANG_EQ_EQ, 311), (mozjs_anon_sym_GT_EQ, 311),
     (mozjs_anon_sym_QMARK_QMARK, 307), (mozjs_anon_sym_instanceof, 307),
     (mozjs_anon_sym_PLUS_PLUS, 311), (mozjs_anon_sym_DASH_DASH, 311),
     (mozjs_sym_comment, 5), (mozjs_anon_sym_BQUOTE, 311),
     (mozjs_anon_sym_static, 1139), (mozjs_anon_sym_get, 1139),
     (mozjs_anon_sym_set, 1139), (mozjs_sym__automatic_semicolon, 311),
     (mozjs_sym__ternary_qmark, 311), (mozjs_sym_html_comment, 5)]"

definition mozjs_parse_row_378 :: "(TSSymbol \<times> nat) list" where
  "mozjs_parse_row_378 =
    [(mozjs_sym_formal_parameters, 1832), (mozjs_sym_identifier, 1127),
     (mozjs_anon_sym_export, 1129), (mozjs_anon_sym_STAR, 307),
     (mozjs_anon_sym_COMMA, 529), (mozjs_anon_sym_RBRACE, 529),
     (mozjs_anon_sym_let, 1129), (mozjs_anon_sym_await, 1129),
     (mozjs_anon_sym_LPAREN, 1104), (mozjs_anon_sym_RPAREN, 529),
     (mozjs_anon_sym_in, 307), (mozjs_anon_sym_EQ, 531),
     (mozjs_anon_sym_LBRACK, 311), (mozjs_anon_sym_RBRACK, 529),
     (mozjs_anon_sym_LT, 307), (mozjs_anon_sym_GT, 307),
     (mozjs_anon_sym_DOT, 311), (mozjs_anon_sym_async, 1129),
     (mozjs_anon_sym_function, 1107), (mozjs_anon_sym_EQ_GT, 534),
     (mozjs_sym_optional_chain, 311), (mozjs_anon_sym_PLUS_EQ, 344),
     (mozjs_anon_sym_DASH_EQ, 344), (mozjs_anon_sym_STAR_EQ, 344),
     (mozjs_anon_sym_SLASH_EQ, 344), (mozjs_anon_sym_PERCENT_EQ, 344),
     (mozjs_anon_sym_CARET_EQ, 344), (mozjs_anon_sym_AMP_EQ, 344),
     (mozjs_anon_sym_PIPE_EQ, 344), (mozjs_anon_sym_GT_GT_EQ, 344),
     (mozjs_anon_sym_GT_GT_GT_EQ, 344), (mozjs_anon_sym_LT_LT_EQ, 344),
     (mozjs_anon_sym_STAR_STAR_EQ, 344), (mozjs_anon_sym_AMP_AMP_EQ, 344),
     (mozjs_anon_sym_PIPE_PIPE_EQ, 344), (mozjs_anon_sym_QMARK_QMARK_EQ, 344),
     (mozjs_anon_sym_AMP_AMP, 307), (mozjs_anon_sym_PIPE_PIPE, 307),
     (mozjs_anon_sym_GT_GT, 307), (mozjs_anon_sym_GT_GT_GT, 307),
     (mozjs_anon_sym_LT_LT, 307), (mozjs_anon_sym_AMP, 307),
     (mozjs_anon_sym_CARET, 307), (mozjs_anon_sym_PIPE, 307),
     (mozjs_anon_sym_PLUS, 307), (mozjs_anon_sym_DASH, 307),
     (mozjs_anon_sym_SLASH, 307), (mozjs_anon_sym_PERCENT, 307),
     (mozjs_anon_sym_STAR_STAR, 307), (mozjs_anon_sym_LT_EQ, 311),
     (mozjs_anon_sym_EQ_EQ, 307), (mozjs_anon_sym_EQ_EQ_EQ, 311),
     (mozjs_anon_sym_BANG_EQ, 307), (mozjs_anon_sym_BANG_EQ_EQ, 311),
     (mozjs_anon_sym_GT_EQ, 311), (mozjs_anon_sym_QMARK_QMARK, 307),
     (mozjs_anon_sym_instanceof, 307), (mozjs_anon_sym_PLUS_PLUS, 311),
     (mozjs_anon_sym_DASH_DASH, 311), (mozjs_sym_comment, 5),
     (mozjs_anon_sym_BQUOTE, 311), (mozjs_anon_sym_static, 1129),
     (mozjs_anon_sym_get, 1129), (mozjs_anon_sym_set, 1129),
     (mozjs_sym__ternary_qmark, 311), (mozjs_sym_html_comment, 5)]"

definition mozjs_parse_row_379 :: "(TSSymbol \<times> nat) list" where
  "mozjs_parse_row_379 =
    [(mozjs_sym_formal_parameters, 1813), (mozjs_sym_identifier, 1131),
     (mozjs_anon_sym_export, 1133), (mozjs_anon_sym_STAR, 307),
     (mozjs_anon_sym_COMMA, 311), (mozjs_anon_sym_let, 1133),
     (mozjs_anon_sym_await, 1133), (mozjs_anon_sym_LPAREN, 1104),
     (mozjs_anon_sym_SEMI, 311), (mozjs_anon_sym_in, 307),
     (mozjs_anon_sym_COLON, 501), (mozjs_anon_sym_EQ, 499),
     (mozjs_anon_sym_LBRACK, 311), (mozjs_anon_sym_LT, 307),
     (mozjs_anon_sym_GT, 307), (mozjs_anon_sym_DOT, 311),
     (mozjs_anon_sym_async, 1133), (mozjs_anon_sym_function, 1141),
     (mozjs_anon_sym_EQ_GT, 342), (mozjs_sym_optional_chain, 311),
     (mozjs_anon_sym_PLUS_EQ, 344), (mozjs_anon_sym_DASH_EQ, 344),
     (mozjs_anon_sym_STAR_EQ, 344), (mozjs_anon_sym_SLASH_EQ, 344),
     (mozjs_anon_sym_PERCENT_EQ, 344), (mozjs_anon_sym_CARET_EQ, 344),
     (mozjs_anon_sym_AMP_EQ, 344), (mozjs_anon_sym_PIPE_EQ, 344),
     (mozjs_anon_sym_GT_GT_EQ, 344), (mozjs_anon_sym_GT_GT_GT_EQ, 344),
     (mozjs_anon_sym_LT_LT_EQ, 344), (mozjs_anon_sym_STAR_STAR_EQ, 344),
     (mozjs_anon_sym_AMP_AMP_EQ, 344), (mozjs_anon_sym_PIPE_PIPE_EQ, 344),
     (mozjs_anon_sym_QMARK_QMARK_EQ, 344), (mozjs_anon_sym_AMP_AMP, 307),
     (mozjs_anon_sym_PIPE_PIPE, 307), (mozjs_anon_sym_GT_GT, 307),
     (mozjs_anon_sym_GT_GT_GT, 307), (mozjs_anon_sym_LT_LT, 307),
     (mozjs_anon_sym_AMP, 307), (mozjs_anon_sym_CARET, 307),
     (mozjs_anon_sym_PIPE, 307), (mozjs_anon_sym_PLUS, 307),
     (mozjs_anon_sym_DASH, 307), (mozjs_anon_sym_SLASH, 307),
     (mozjs_anon_sym_PERCENT, 307), (mozjs_anon_sym_STAR_STAR, 307),
     (mozjs_anon_sym_LT_EQ, 311), (mozjs_anon_sym_EQ_EQ, 307),
     (mozjs_anon_sym_EQ_EQ_EQ, 311), (mozjs_anon_sym_BANG_EQ, 307),
     (mozjs_anon_sym_BANG_EQ_EQ, 311), (mozjs_anon_sym_GT_EQ, 311),
     (mozjs_anon_sym_QMARK_QMARK, 307), (mozjs_anon_sym_instanceof, 307),
     (mozjs_anon_sym_PLUS_PLUS, 311), (mozjs_anon_sym_DASH_DASH, 311),
     (mozjs_sym_comment, 5), (mozjs_anon_sym_BQUOTE, 311),
     (mozjs_anon_sym_static, 1133), (mozjs_anon_sym_get, 1133),
     (mozjs_anon_sym_set, 1133), (mozjs_sym__automatic_semicolon, 311),
     (mozjs_sym__ternary_qmark, 311), (mozjs_sym_html_comment, 5)]"

definition mozjs_parse_row_380 :: "(TSSymbol \<times> nat) list" where
  "mozjs_parse_row_380 =
    [(mozjs_sym_formal_parameters, 1813), (mozjs_sym_identifier, 1131),
     (mozjs_anon_sym_export, 1133), (mozjs_anon_sym_STAR, 307),
     (mozjs_anon_sym_COMMA, 311), (mozjs_anon_sym_RBRACE, 311),
     (mozjs_anon_sym_let, 1133), (mozjs_anon_sym_await, 1133),
     (mozjs_anon_sym_LPAREN, 1104), (mozjs_anon_sym_SEMI, 311),
     (mozjs_anon_sym_in, 307), (mozjs_anon_sym_EQ, 499),
     (mozjs_anon_sym_LBRACK, 311), (mozjs_anon_sym_LT, 307),
     (mozjs_anon_sym_GT, 307), (mozjs_anon_sym_DOT, 311),
     (mozjs_anon_sym_async, 1133), (mozjs_anon_sym_function, 1135),
     (mozjs_anon_sym_EQ_GT, 342), (mozjs_sym_optional_chain, 311),
     (mozjs_anon_sym_PLUS_EQ, 344), (mozjs_anon_sym_DASH_EQ, 344),
     (mozjs_anon_sym_STAR_EQ, 344), (mozjs_anon_sym_SLASH_EQ, 344),
     (mozjs_anon_sym_PERCENT_EQ, 344), (mozjs_anon_sym_CARET_EQ, 344),
     (mozjs_anon_sym_AMP_EQ, 344), (mozjs_anon_sym_PIPE_EQ, 344),
     (mozjs_anon_sym_GT_GT_EQ, 344), (mozjs_anon_sym_GT_GT_GT_EQ, 344),
     (mozjs_anon_sym_LT_LT_EQ, 344), (mozjs_anon_sym_STAR_STAR_EQ, 344),
     (mozjs_anon_sym_AMP_AMP_EQ, 344), (mozjs_anon_sym_PIPE_PIPE_EQ, 344),
     (mozjs_anon_sym_QMARK_QMARK_EQ, 344), (mozjs_anon_sym_AMP_AMP, 307),
     (mozjs_anon_sym_PIPE_PIPE, 307), (mozjs_anon_sym_GT_GT, 307),
     (mozjs_anon_sym_GT_GT_GT, 307), (mozjs_anon_sym_LT_LT, 307),
     (mozjs_anon_sym_AMP, 307), (mozjs_anon_sym_CARET, 307),
     (mozjs_anon_sym_PIPE, 307), (mozjs_anon_sym_PLUS, 307),
     (mozjs_anon_sym_DASH, 307), (mozjs_anon_sym_SLASH, 307),
     (mozjs_anon_sym_PERCENT, 307), (mozjs_anon_sym_STAR_STAR, 307),
     (mozjs_anon_sym_LT_EQ, 311), (mozjs_anon_sym_EQ_EQ, 307),
     (mozjs_anon_sym_EQ_EQ_EQ, 311), (mozjs_anon_sym_BANG_EQ, 307),
     (mozjs_anon_sym_BANG_EQ_EQ, 311), (mozjs_anon_sym_GT_EQ, 311),
     (mozjs_anon_sym_QMARK_QMARK, 307), (mozjs_anon_sym_instanceof, 307),
     (mozjs_anon_sym_PLUS_PLUS, 311), (mozjs_anon_sym_DASH_DASH, 311),
     (mozjs_sym_comment, 5), (mozjs_anon_sym_BQUOTE, 311),
     (mozjs_anon_sym_static, 1133), (mozjs_anon_sym_get, 1133),
     (mozjs_anon_sym_set, 1133), (mozjs_sym__automatic_semicolon, 311),
     (mozjs_sym__ternary_qmark, 311), (mozjs_sym_html_comment, 5)]"

definition mozjs_parse_row_381 :: "(TSSymbol \<times> nat) list" where
  "mozjs_parse_row_381 =
    [(mozjs_sym_formal_parameters, 1822), (mozjs_sym_identifier, 1137),
     (mozjs_anon_sym_export, 1139), (mozjs_anon_sym_STAR, 307),
     (mozjs_anon_sym_COMMA, 311), (mozjs_anon_sym_let, 1139),
     (mozjs_anon_sym_await, 1139), (mozjs_anon_sym_of, 307),
     (mozjs_anon_sym_LPAREN, 1104), (mozjs_anon_sym_SEMI, 311),
     (mozjs_anon_sym_in, 307), (mozjs_anon_sym_EQ, 559),
     (mozjs_anon_sym_LBRACK, 311), (mozjs_anon_sym_LT, 307),
     (mozjs_anon_sym_GT, 307), (mozjs_anon_sym_DOT, 311),
     (mozjs_anon_sym_async, 1139), (mozjs_anon_sym_function, 1135),
     (mozjs_anon_sym_EQ_GT, 563), (mozjs_sym_optional_chain, 311),
     (mozjs_anon_sym_PLUS_EQ, 344), (mozjs_anon_sym_DASH_EQ, 344),
     (mozjs_anon_sym_STAR_EQ, 344), (mozjs_anon_sym_SLASH_EQ, 344),
     (mozjs_anon_sym_PERCENT_EQ, 344), (mozjs_anon_sym_CARET_EQ, 344),
     (mozjs_anon_sym_AMP_EQ, 344), (mozjs_anon_sym_PIPE_EQ, 344),
     (mozjs_anon_sym_GT_GT_EQ, 344), (mozjs_anon_sym_GT_GT_GT_EQ, 344),
     (mozjs_anon_sym_LT_LT_EQ, 344), (mozjs_anon_sym_STAR_STAR_EQ, 344),
     (mozjs_anon_sym_AMP_AMP_EQ, 344), (mozjs_anon_sym_PIPE_PIPE_EQ, 344),
     (mozjs_anon_sym_QMARK_QMARK_EQ, 344), (mozjs_anon_sym_AMP_AMP, 307),
     (mozjs_anon_sym_PIPE_PIPE, 307), (mozjs_anon_sym_GT_GT, 307),
     (mozjs_anon_sym_GT_GT_GT, 307), (mozjs_anon_sym_LT_LT, 307),
     (mozjs_anon_sym_AMP, 307), (mozjs_anon_sym_CARET, 307),
     (mozjs_anon_sym_PIPE, 307), (mozjs_anon_sym_PLUS, 307),
     (mozjs_anon_sym_DASH, 307), (mozjs_anon_sym_SLASH, 307),
     (mozjs_anon_sym_PERCENT, 307), (mozjs_anon_sym_STAR_STAR, 307),
     (mozjs_anon_sym_LT_EQ, 311), (mozjs_anon_sym_EQ_EQ, 307),
     (mozjs_anon_sym_EQ_EQ_EQ, 311), (mozjs_anon_sym_BANG_EQ, 307),
     (mozjs_anon_sym_BANG_EQ_EQ, 311), (mozjs_anon_sym_GT_EQ, 311),
     (mozjs_anon_sym_QMARK_QMARK, 307), (mozjs_anon_sym_instanceof, 307),
     (mozjs_anon_sym_PLUS_PLUS, 311), (mozjs_anon_sym_DASH_DASH, 311),
     (mozjs_sym_comment, 5), (mozjs_anon_sym_BQUOTE, 311),
     (mozjs_anon_sym_static, 1139), (mozjs_anon_sym_get, 1139),
     (mozjs_anon_sym_set, 1139), (mozjs_sym__automatic_semicolon, 311),
     (mozjs_sym__ternary_qmark, 311), (mozjs_sym_html_comment, 5)]"

definition mozjs_parse_row_382 :: "(TSSymbol \<times> nat) list" where
  "mozjs_parse_row_382 =
    [(mozjs_sym_variable_declarator, 1337), (mozjs_sym_object_pattern, 1283),
     (mozjs_sym_array_pattern, 1283), (mozjs_sym__destructuring_pattern, 1283),
     (mozjs_aux_sym_object_repeat1, 1411), (mozjs_aux_sym_object_pattern_repeat1, 1414),
     (mozjs_sym_identifier, 1119), (mozjs_anon_sym_STAR, 307),
     (mozjs_anon_sym_LBRACE, 1121), (mozjs_anon_sym_COMMA, 311),
     (mozjs_anon_sym_RBRACE, 313), (mozjs_anon_sym_of, 1123),
     (mozjs_anon_sym_LPAREN, 949), (mozjs_anon_sym_SEMI, 311),
     (mozjs_anon_sym_in, 307), (mozjs_anon_sym_COLON, 325),
     (mozjs_anon_sym_EQ, 328), (mozjs_anon_sym_LBRACK, 1125),
     (mozjs_anon_sym_LT, 307), (mozjs_anon_sym_GT, 307),
     (mozjs_anon_sym_DOT, 311), (mozjs_anon_sym_EQ_GT, 342),
     (mozjs_sym_optional_chain, 311), (mozjs_anon_sym_PLUS_EQ, 344),
     (mozjs_anon_sym_DASH_EQ, 344), (mozjs_anon_sym_STAR_EQ, 344),
     (mozjs_anon_sym_SLASH_EQ, 344), (mozjs_anon_sym_PERCENT_EQ, 344),
     (mozjs_anon_sym_CARET_EQ, 344), (mozjs_anon_sym_AMP_EQ, 344),
     (mozjs_anon_sym_PIPE_EQ, 344), (mozjs_anon_sym_GT_GT_EQ, 344),
     (mozjs_anon_sym_GT_GT_GT_EQ, 344), (mozjs_anon_sym_LT_LT_EQ, 344),
     (mozjs_anon_sym_STAR_STAR_EQ, 344), (mozjs_anon_sym_AMP_AMP_EQ, 344),
     (mozjs_anon_sym_PIPE_PIPE_EQ, 344), (mozjs_anon_sym_QMARK_QMARK_EQ, 344),
     (mozjs_anon_sym_AMP_AMP, 307), (mozjs_anon_sym_PIPE_PIPE, 307),
     (mozjs_anon_sym_GT_GT, 307), (mozjs_anon_sym_GT_GT_GT, 307),
     (mozjs_anon_sym_LT_LT, 307), (mozjs_anon_sym_AMP, 307),
     (mozjs_anon_sym_CARET, 307), (mozjs_anon_sym_PIPE, 307),
     (mozjs_anon_sym_PLUS, 307), (mozjs_anon_sym_DASH, 307),
     (mozjs_anon_sym_SLASH, 307), (mozjs_anon_sym_PERCENT, 307),
     (mozjs_anon_sym_STAR_STAR, 307), (mozjs_anon_sym_LT_EQ, 311),
     (mozjs_anon_sym_EQ_EQ, 307), (mozjs_anon_sym_EQ_EQ_EQ, 311),
     (mozjs_anon_sym_BANG_EQ, 307), (mozjs_anon_sym_BANG_EQ_EQ, 311),
     (mozjs_anon_sym_GT_EQ, 311), (mozjs_anon_sym_QMARK_QMARK, 307),
     (mozjs_anon_sym_instanceof, 307), (mozjs_anon_sym_PLUS_PLUS, 311),
     (mozjs_anon_sym_DASH_DASH, 311), (mozjs_sym_comment, 5),
     (mozjs_anon_sym_BQUOTE, 311), (mozjs_sym__automatic_semicolon, 311),
     (mozjs_sym__ternary_qmark, 311), (mozjs_sym_html_comment, 5)]"

definition mozjs_parse_row_383 :: "(TSSymbol \<times> nat) list" where
  "mozjs_parse_row_383 =
    [(ts_builtin_sym_end, 713), (mozjs_sym_identifier, 715),
     (mozjs_anon_sym_export, 715), (mozjs_anon_sym_default, 715),
     (mozjs_anon_sym_LBRACE, 713), (mozjs_anon_sym_COMMA, 713),
     (mozjs_anon_sym_RBRACE, 713), (mozjs_anon_sym_import, 715),
     (mozjs_anon_sym_with, 715), (mozjs_anon_sym_var, 715),
     (mozjs_anon_sym_let, 715), (mozjs_anon_sym_const, 715),
     (mozjs_anon_sym_using, 715), (mozjs_anon_sym_await, 715),
     (mozjs_anon_sym_else, 715), (mozjs_anon_sym_if, 715),
     (mozjs_anon_sym_switch, 715), (mozjs_anon_sym_for, 715),
     (mozjs_anon_sym_LPAREN, 713), (mozjs_anon_sym_SEMI, 713),
     (mozjs_anon_sym_while, 715), (mozjs_anon_sym_do, 715),
     (mozjs_anon_sym_try, 715), (mozjs_anon_sym_break, 715),
     (mozjs_anon_sym_continue, 715), (mozjs_anon_sym_debugger, 715),
     (mozjs_anon_sym_return, 715), (mozjs_anon_sym_throw, 715),
     (mozjs_anon_sym_case, 715), (mozjs_anon_sym_catch, 715),
     (mozjs_anon_sym_finally, 715), (mozjs_anon_sym_yield, 715),
     (mozjs_anon_sym_LBRACK, 713), (mozjs_anon_sym_LT, 713),
     (mozjs_anon_sym_DQUOTE, 713), (mozjs_anon_sym_SQUOTE, 713),
     (mozjs_anon_sym_class, 715), (mozjs_anon_sym_async, 715),
     (mozjs_anon_sym_function, 715), (mozjs_anon_sym_new, 715),
     (mozjs_anon_sym_PLUS, 715), (mozjs_anon_sym_DASH, 715),
     (mozjs_anon_sym_SLASH, 715), (mozjs_anon_sym_BANG, 713),
     (mozjs_anon_sym_TILDE, 713), (mozjs_anon_sym_typeof, 715),
     (mozjs_anon_sym_void, 715), (mozjs_anon_sym_delete, 715),
     (mozjs_anon_sym_PLUS_PLUS, 713), (mozjs_anon_sym_DASH_DASH, 713),
     (mozjs_sym_comment, 5), (mozjs_anon_sym_BQUOTE, 713),
     (mozjs_sym_number, 713), (mozjs_sym_private_property_identifier, 715),
     (mozjs_sym_this, 715), (mozjs_sym_super, 715),
     (mozjs_sym_true, 715), (mozjs_sym_false, 715),
     (mozjs_sym_null, 715), (mozjs_sym_undefined, 715),
     (mozjs_anon_sym_AT, 713), (mozjs_anon_sym_static, 715),
     (mozjs_anon_sym_get, 715), (mozjs_anon_sym_set, 715),
     (mozjs_sym_preproc, 713), (mozjs_sym_html_comment, 5)]"

definition mozjs_parse_row_384 :: "(TSSymbol \<times> nat) list" where
  "mozjs_parse_row_384 =
    [(ts_builtin_sym_end, 703), (mozjs_sym_identifier, 705),
     (mozjs_anon_sym_export, 705), (mozjs_anon_sym_default, 705),
     (mozjs_anon_sym_LBRACE, 703), (mozjs_anon_sym_COMMA, 703),
     (mozjs_anon_sym_RBRACE, 703), (mozjs_anon_sym_import, 705),
     (mozjs_anon_sym_with, 705), (mozjs_anon_sym_var, 705),
     (mozjs_anon_sym_let, 705), (mozjs_anon_sym_const, 705),
     (mozjs_anon_sym_using, 705), (mozjs_anon_sym_await, 705),
     (mozjs_anon_sym_else, 705), (mozjs_anon_sym_if, 705),
     (mozjs_anon_sym_switch, 705), (mozjs_anon_sym_for, 705),
     (mozjs_anon_sym_LPAREN, 703), (mozjs_anon_sym_SEMI, 703),
     (mozjs_anon_sym_while, 705), (mozjs_anon_sym_do, 705),
     (mozjs_anon_sym_try, 705), (mozjs_anon_sym_break, 705),
     (mozjs_anon_sym_continue, 705), (mozjs_anon_sym_debugger, 705),
     (mozjs_anon_sym_return, 705), (mozjs_anon_sym_throw, 705),
     (mozjs_anon_sym_case, 705), (mozjs_anon_sym_catch, 705),
     (mozjs_anon_sym_finally, 705), (mozjs_anon_sym_yield, 705),
     (mozjs_anon_sym_LBRACK, 703), (mozjs_anon_sym_LT, 703),
     (mozjs_anon_sym_DQUOTE, 703), (mozjs_anon_sym_SQUOTE, 703),
     (mozjs_anon_sym_class, 705), (mozjs_anon_sym_async, 705),
     (mozjs_anon_sym_function, 705), (mozjs_anon_sym_new, 705),
     (mozjs_anon_sym_PLUS, 705), (mozjs_anon_sym_DASH, 705),
     (mozjs_anon_sym_SLASH, 705), (mozjs_anon_sym_BANG, 703),
     (mozjs_anon_sym_TILDE, 703), (mozjs_anon_sym_typeof, 705),
     (mozjs_anon_sym_void, 705), (mozjs_anon_sym_delete, 705),
     (mozjs_anon_sym_PLUS_PLUS, 703), (mozjs_anon_sym_DASH_DASH, 703),
     (mozjs_sym_comment, 5), (mozjs_anon_sym_BQUOTE, 703),
     (mozjs_sym_number, 703), (mozjs_sym_private_property_identifier, 705),
     (mozjs_sym_this, 705), (mozjs_sym_super, 705),
     (mozjs_sym_true, 705), (mozjs_sym_false, 705),
     (mozjs_sym_null, 705), (mozjs_sym_undefined, 705),
     (mozjs_anon_sym_AT, 703), (mozjs_anon_sym_static, 705),
     (mozjs_anon_sym_get, 705), (mozjs_anon_sym_set, 705),
     (mozjs_sym_preproc, 703), (mozjs_sym_html_comment, 5)]"

definition mozjs_parse_row_385 :: "(TSSymbol \<times> nat) list" where
  "mozjs_parse_row_385 =
    [(mozjs_sym_formal_parameters, 1848), (mozjs_sym_identifier, 1100),
     (mozjs_anon_sym_export, 1102), (mozjs_anon_sym_STAR, 307),
     (mozjs_anon_sym_COMMA, 584), (mozjs_anon_sym_RBRACE, 584),
     (mozjs_anon_sym_let, 1102), (mozjs_anon_sym_await, 1102),
     (mozjs_anon_sym_LPAREN, 1104), (mozjs_anon_sym_in, 307),
     (mozjs_anon_sym_EQ, 399), (mozjs_anon_sym_LBRACK, 311),
     (mozjs_anon_sym_RBRACK, 584), (mozjs_anon_sym_LT, 307),
     (mozjs_anon_sym_GT, 307), (mozjs_anon_sym_DOT, 311),
     (mozjs_anon_sym_async, 1102), (mozjs_anon_sym_function, 1107),
     (mozjs_anon_sym_EQ_GT, 417), (mozjs_sym_optional_chain, 311),
     (mozjs_anon_sym_PLUS_EQ, 344), (mozjs_anon_sym_DASH_EQ, 344),
     (mozjs_anon_sym_STAR_EQ, 344), (mozjs_anon_sym_SLASH_EQ, 344),
     (mozjs_anon_sym_PERCENT_EQ, 344), (mozjs_anon_sym_CARET_EQ, 344),
     (mozjs_anon_sym_AMP_EQ, 344), (mozjs_anon_sym_PIPE_EQ, 344),
     (mozjs_anon_sym_GT_GT_EQ, 344), (mozjs_anon_sym_GT_GT_GT_EQ, 344),
     (mozjs_anon_sym_LT_LT_EQ, 344), (mozjs_anon_sym_STAR_STAR_EQ, 344),
     (mozjs_anon_sym_AMP_AMP_EQ, 344), (mozjs_anon_sym_PIPE_PIPE_EQ, 344),
     (mozjs_anon_sym_QMARK_QMARK_EQ, 344), (mozjs_anon_sym_AMP_AMP, 307),
     (mozjs_anon_sym_PIPE_PIPE, 307), (mozjs_anon_sym_GT_GT, 307),
     (mozjs_anon_sym_GT_GT_GT, 307), (mozjs_anon_sym_LT_LT, 307),
     (mozjs_anon_sym_AMP, 307), (mozjs_anon_sym_CARET, 307),
     (mozjs_anon_sym_PIPE, 307), (mozjs_anon_sym_PLUS, 307),
     (mozjs_anon_sym_DASH, 307), (mozjs_anon_sym_SLASH, 307),
     (mozjs_anon_sym_PERCENT, 307), (mozjs_anon_sym_STAR_STAR, 307),
     (mozjs_anon_sym_LT_EQ, 311), (mozjs_anon_sym_EQ_EQ, 307),
     (mozjs_anon_sym_EQ_EQ_EQ, 311), (mozjs_anon_sym_BANG_EQ, 307),
     (mozjs_anon_sym_BANG_EQ_EQ, 311), (mozjs_anon_sym_GT_EQ, 311),
     (mozjs_anon_sym_QMARK_QMARK, 307), (mozjs_anon_sym_instanceof, 307),
     (mozjs_anon_sym_PLUS_PLUS, 311), (mozjs_anon_sym_DASH_DASH, 311),
     (mozjs_sym_comment, 5), (mozjs_anon_sym_BQUOTE, 311),
     (mozjs_anon_sym_static, 1102), (mozjs_anon_sym_get, 1102),
     (mozjs_anon_sym_set, 1102), (mozjs_sym__ternary_qmark, 311),
     (mozjs_sym_html_comment, 5)]"

definition mozjs_parse_row_386 :: "(TSSymbol \<times> nat) list" where
  "mozjs_parse_row_386 =
    [(mozjs_sym_formal_parameters, 1848), (mozjs_sym_identifier, 1100),
     (mozjs_anon_sym_export, 1102), (mozjs_anon_sym_STAR, 307),
     (mozjs_anon_sym_COMMA, 311), (mozjs_anon_sym_let, 1102),
     (mozjs_anon_sym_await, 1102), (mozjs_anon_sym_of, 546),
     (mozjs_anon_sym_LPAREN, 1104), (mozjs_anon_sym_SEMI, 311),
     (mozjs_anon_sym_in, 548), (mozjs_anon_sym_EQ, 399),
     (mozjs_anon_sym_LBRACK, 311), (mozjs_anon_sym_LT, 307),
     (mozjs_anon_sym_GT, 307), (mozjs_anon_sym_DOT, 311),
     (mozjs_anon_sym_async, 1102), (mozjs_anon_sym_function, 1107),
     (mozjs_anon_sym_EQ_GT, 417), (mozjs_sym_optional_chain, 311),
     (mozjs_anon_sym_PLUS_EQ, 344), (mozjs_anon_sym_DASH_EQ, 344),
     (mozjs_anon_sym_STAR_EQ, 344), (mozjs_anon_sym_SLASH_EQ, 344),
     (mozjs_anon_sym_PERCENT_EQ, 344), (mozjs_anon_sym_CARET_EQ, 344),
     (mozjs_anon_sym_AMP_EQ, 344), (mozjs_anon_sym_PIPE_EQ, 344),
     (mozjs_anon_sym_GT_GT_EQ, 344), (mozjs_anon_sym_GT_GT_GT_EQ, 344),
     (mozjs_anon_sym_LT_LT_EQ, 344), (mozjs_anon_sym_STAR_STAR_EQ, 344),
     (mozjs_anon_sym_AMP_AMP_EQ, 344), (mozjs_anon_sym_PIPE_PIPE_EQ, 344),
     (mozjs_anon_sym_QMARK_QMARK_EQ, 344), (mozjs_anon_sym_AMP_AMP, 307),
     (mozjs_anon_sym_PIPE_PIPE, 307), (mozjs_anon_sym_GT_GT, 307),
     (mozjs_anon_sym_GT_GT_GT, 307), (mozjs_anon_sym_LT_LT, 307),
     (mozjs_anon_sym_AMP, 307), (mozjs_anon_sym_CARET, 307),
     (mozjs_anon_sym_PIPE, 307), (mozjs_anon_sym_PLUS, 307),
     (mozjs_anon_sym_DASH, 307), (mozjs_anon_sym_SLASH, 307),
     (mozjs_anon_sym_PERCENT, 307), (mozjs_anon_sym_STAR_STAR, 307),
     (mozjs_anon_sym_LT_EQ, 311), (mozjs_anon_sym_EQ_EQ, 307),
     (mozjs_anon_sym_EQ_EQ_EQ, 311), (mozjs_anon_sym_BANG_EQ, 307),
     (mozjs_anon_sym_BANG_EQ_EQ, 311), (mozjs_anon_sym_GT_EQ, 311),
     (mozjs_anon_sym_QMARK_QMARK, 307), (mozjs_anon_sym_instanceof, 307),
     (mozjs_anon_sym_PLUS_PLUS, 311), (mozjs_anon_sym_DASH_DASH, 311),
     (mozjs_sym_comment, 5), (mozjs_anon_sym_BQUOTE, 311),
     (mozjs_anon_sym_static, 1102), (mozjs_anon_sym_get, 1102),
     (mozjs_anon_sym_set, 1102), (mozjs_sym__ternary_qmark, 311),
     (mozjs_sym_html_comment, 5)]"

definition mozjs_parse_row_387 :: "(TSSymbol \<times> nat) list" where
  "mozjs_parse_row_387 =
    [(mozjs_sym_finally_clause, 414), (ts_builtin_sym_end, 1143),
     (mozjs_sym_identifier, 1145), (mozjs_anon_sym_export, 1145),
     (mozjs_anon_sym_default, 1145), (mozjs_anon_sym_LBRACE, 1143),
     (mozjs_anon_sym_RBRACE, 1143), (mozjs_anon_sym_import, 1145),
     (mozjs_anon_sym_with, 1145), (mozjs_anon_sym_var, 1145),
     (mozjs_anon_sym_let, 1145), (mozjs_anon_sym_const, 1145),
     (mozjs_anon_sym_using, 1145), (mozjs_anon_sym_await, 1145),
     (mozjs_anon_sym_else, 1145), (mozjs_anon_sym_if, 1145),
     (mozjs_anon_sym_switch, 1145), (mozjs_anon_sym_for, 1145),
     (mozjs_anon_sym_LPAREN, 1143), (mozjs_anon_sym_SEMI, 1143),
     (mozjs_anon_sym_while, 1145), (mozjs_anon_sym_do, 1145),
     (mozjs_anon_sym_try, 1145), (mozjs_anon_sym_break, 1145),
     (mozjs_anon_sym_continue, 1145), (mozjs_anon_sym_debugger, 1145),
     (mozjs_anon_sym_return, 1145), (mozjs_anon_sym_throw, 1145),
     (mozjs_anon_sym_case, 1145), (mozjs_anon_sym_finally, 1115),
     (mozjs_anon_sym_yield, 1145), (mozjs_anon_sym_LBRACK, 1143),
     (mozjs_anon_sym_LT, 1143), (mozjs_anon_sym_DQUOTE, 1143),
     (mozjs_anon_sym_SQUOTE, 1143), (mozjs_anon_sym_class, 1145),
     (mozjs_anon_sym_async, 1145), (mozjs_anon_sym_function, 1145),
     (mozjs_anon_sym_new, 1145), (mozjs_anon_sym_PLUS, 1145),
     (mozjs_anon_sym_DASH, 1145), (mozjs_anon_sym_SLASH, 1145),
     (mozjs_anon_sym_BANG, 1143), (mozjs_anon_sym_TILDE, 1143),
     (mozjs_anon_sym_typeof, 1145), (mozjs_anon_sym_void, 1145),
     (mozjs_anon_sym_delete, 1145), (mozjs_anon_sym_PLUS_PLUS, 1143),
     (mozjs_anon_sym_DASH_DASH, 1143), (mozjs_sym_comment, 5),
     (mozjs_anon_sym_BQUOTE, 1143), (mozjs_sym_number, 1143),
     (mozjs_sym_private_property_identifier, 1145), (mozjs_sym_this, 1145),
     (mozjs_sym_super, 1145), (mozjs_sym_true, 1145),
     (mozjs_sym_false, 1145), (mozjs_sym_null, 1145),
     (mozjs_sym_undefined, 1145), (mozjs_anon_sym_AT, 1143),
     (mozjs_anon_sym_static, 1145), (mozjs_anon_sym_get, 1145),
     (mozjs_anon_sym_set, 1145), (mozjs_sym_preproc, 1143),
     (mozjs_sym_html_comment, 5)]"

section \<open>The table\<close>

definition mozjs_parse_rows_0 :: "(nat \<times> (TSSymbol \<times> nat) list) list" where
  "mozjs_parse_rows_0 =
    [(0, mozjs_parse_row_0), (1, mozjs_parse_row_1), (2, mozjs_parse_row_2),
     (3, mozjs_parse_row_3), (4, mozjs_parse_row_4), (5, mozjs_parse_row_5),
     (6, mozjs_parse_row_6), (7, mozjs_parse_row_7), (8, mozjs_parse_row_8),
     (9, mozjs_parse_row_9), (10, mozjs_parse_row_10), (11, mozjs_parse_row_11),
     (12, mozjs_parse_row_12), (13, mozjs_parse_row_13), (14, mozjs_parse_row_14),
     (15, mozjs_parse_row_15), (16, mozjs_parse_row_16), (17, mozjs_parse_row_17),
     (18, mozjs_parse_row_18), (19, mozjs_parse_row_19), (20, mozjs_parse_row_20),
     (21, mozjs_parse_row_21), (22, mozjs_parse_row_22), (23, mozjs_parse_row_23),
     (24, mozjs_parse_row_24), (25, mozjs_parse_row_25), (26, mozjs_parse_row_26),
     (27, mozjs_parse_row_27), (28, mozjs_parse_row_28), (29, mozjs_parse_row_29),
     (30, mozjs_parse_row_30), (31, mozjs_parse_row_31), (32, mozjs_parse_row_32),
     (33, mozjs_parse_row_33), (34, mozjs_parse_row_34), (35, mozjs_parse_row_35),
     (36, mozjs_parse_row_36), (37, mozjs_parse_row_37), (38, mozjs_parse_row_38),
     (39, mozjs_parse_row_39)]"

definition mozjs_parse_rows_1 :: "(nat \<times> (TSSymbol \<times> nat) list) list" where
  "mozjs_parse_rows_1 =
    [(40, mozjs_parse_row_40), (41, mozjs_parse_row_41), (42, mozjs_parse_row_42),
     (43, mozjs_parse_row_43), (44, mozjs_parse_row_44), (45, mozjs_parse_row_45),
     (46, mozjs_parse_row_46), (47, mozjs_parse_row_47), (48, mozjs_parse_row_48),
     (49, mozjs_parse_row_49), (50, mozjs_parse_row_50), (51, mozjs_parse_row_51),
     (52, mozjs_parse_row_52), (53, mozjs_parse_row_53), (54, mozjs_parse_row_54),
     (55, mozjs_parse_row_55), (56, mozjs_parse_row_56), (57, mozjs_parse_row_57),
     (58, mozjs_parse_row_58), (59, mozjs_parse_row_59), (60, mozjs_parse_row_60),
     (61, mozjs_parse_row_61), (62, mozjs_parse_row_62), (63, mozjs_parse_row_63),
     (64, mozjs_parse_row_64), (65, mozjs_parse_row_65), (66, mozjs_parse_row_66),
     (67, mozjs_parse_row_67), (68, mozjs_parse_row_68), (69, mozjs_parse_row_69),
     (70, mozjs_parse_row_70), (71, mozjs_parse_row_71), (72, mozjs_parse_row_72),
     (73, mozjs_parse_row_73), (74, mozjs_parse_row_74), (75, mozjs_parse_row_75),
     (76, mozjs_parse_row_76), (77, mozjs_parse_row_77), (78, mozjs_parse_row_78),
     (79, mozjs_parse_row_79)]"

definition mozjs_parse_rows_2 :: "(nat \<times> (TSSymbol \<times> nat) list) list" where
  "mozjs_parse_rows_2 =
    [(80, mozjs_parse_row_80), (81, mozjs_parse_row_81), (82, mozjs_parse_row_82),
     (83, mozjs_parse_row_83), (84, mozjs_parse_row_84), (85, mozjs_parse_row_85),
     (86, mozjs_parse_row_86), (87, mozjs_parse_row_87), (88, mozjs_parse_row_88),
     (89, mozjs_parse_row_89), (90, mozjs_parse_row_90), (91, mozjs_parse_row_91),
     (92, mozjs_parse_row_92), (93, mozjs_parse_row_93), (94, mozjs_parse_row_94),
     (95, mozjs_parse_row_95), (96, mozjs_parse_row_96), (97, mozjs_parse_row_97),
     (98, mozjs_parse_row_98), (99, mozjs_parse_row_99), (100, mozjs_parse_row_100),
     (101, mozjs_parse_row_101), (102, mozjs_parse_row_102), (103, mozjs_parse_row_103),
     (104, mozjs_parse_row_104), (105, mozjs_parse_row_105), (106, mozjs_parse_row_106),
     (107, mozjs_parse_row_107), (108, mozjs_parse_row_108), (109, mozjs_parse_row_109),
     (110, mozjs_parse_row_110), (111, mozjs_parse_row_111), (112, mozjs_parse_row_112),
     (113, mozjs_parse_row_113), (114, mozjs_parse_row_114), (115, mozjs_parse_row_115),
     (116, mozjs_parse_row_116), (117, mozjs_parse_row_117), (118, mozjs_parse_row_118),
     (119, mozjs_parse_row_119)]"

definition mozjs_parse_rows_3 :: "(nat \<times> (TSSymbol \<times> nat) list) list" where
  "mozjs_parse_rows_3 =
    [(120, mozjs_parse_row_120), (121, mozjs_parse_row_121), (122, mozjs_parse_row_122),
     (123, mozjs_parse_row_123), (124, mozjs_parse_row_124), (125, mozjs_parse_row_125),
     (126, mozjs_parse_row_126), (127, mozjs_parse_row_127), (128, mozjs_parse_row_128),
     (129, mozjs_parse_row_129), (130, mozjs_parse_row_130), (131, mozjs_parse_row_131),
     (132, mozjs_parse_row_132), (133, mozjs_parse_row_133), (134, mozjs_parse_row_134),
     (135, mozjs_parse_row_135), (136, mozjs_parse_row_136), (137, mozjs_parse_row_137),
     (138, mozjs_parse_row_138), (139, mozjs_parse_row_139), (140, mozjs_parse_row_140),
     (141, mozjs_parse_row_141), (142, mozjs_parse_row_142), (143, mozjs_parse_row_143),
     (144, mozjs_parse_row_144), (145, mozjs_parse_row_145), (146, mozjs_parse_row_146),
     (147, mozjs_parse_row_147), (148, mozjs_parse_row_148), (149, mozjs_parse_row_149),
     (150, mozjs_parse_row_150), (151, mozjs_parse_row_151), (152, mozjs_parse_row_152),
     (153, mozjs_parse_row_153), (154, mozjs_parse_row_154), (155, mozjs_parse_row_155),
     (156, mozjs_parse_row_156), (157, mozjs_parse_row_157), (158, mozjs_parse_row_158),
     (159, mozjs_parse_row_159)]"

definition mozjs_parse_rows_4 :: "(nat \<times> (TSSymbol \<times> nat) list) list" where
  "mozjs_parse_rows_4 =
    [(160, mozjs_parse_row_160), (161, mozjs_parse_row_161), (162, mozjs_parse_row_162),
     (163, mozjs_parse_row_163), (164, mozjs_parse_row_164), (165, mozjs_parse_row_165),
     (166, mozjs_parse_row_166), (167, mozjs_parse_row_167), (168, mozjs_parse_row_168),
     (169, mozjs_parse_row_169), (170, mozjs_parse_row_170), (171, mozjs_parse_row_171),
     (172, mozjs_parse_row_172), (173, mozjs_parse_row_173), (174, mozjs_parse_row_174),
     (175, mozjs_parse_row_175), (176, mozjs_parse_row_176), (177, mozjs_parse_row_177),
     (178, mozjs_parse_row_178), (179, mozjs_parse_row_179), (180, mozjs_parse_row_180),
     (181, mozjs_parse_row_181), (182, mozjs_parse_row_182), (183, mozjs_parse_row_183),
     (184, mozjs_parse_row_184), (185, mozjs_parse_row_185), (186, mozjs_parse_row_186),
     (187, mozjs_parse_row_187), (188, mozjs_parse_row_188), (189, mozjs_parse_row_189),
     (190, mozjs_parse_row_190), (191, mozjs_parse_row_191), (192, mozjs_parse_row_192),
     (193, mozjs_parse_row_193), (194, mozjs_parse_row_194), (195, mozjs_parse_row_195),
     (196, mozjs_parse_row_196), (197, mozjs_parse_row_197), (198, mozjs_parse_row_198),
     (199, mozjs_parse_row_199)]"

definition mozjs_parse_rows_5 :: "(nat \<times> (TSSymbol \<times> nat) list) list" where
  "mozjs_parse_rows_5 =
    [(200, mozjs_parse_row_200), (201, mozjs_parse_row_201), (202, mozjs_parse_row_202),
     (203, mozjs_parse_row_203), (204, mozjs_parse_row_204), (205, mozjs_parse_row_205),
     (206, mozjs_parse_row_206), (207, mozjs_parse_row_207), (208, mozjs_parse_row_208),
     (209, mozjs_parse_row_209), (210, mozjs_parse_row_210), (211, mozjs_parse_row_211),
     (212, mozjs_parse_row_212), (213, mozjs_parse_row_213), (214, mozjs_parse_row_214),
     (215, mozjs_parse_row_215), (216, mozjs_parse_row_216), (217, mozjs_parse_row_217),
     (218, mozjs_parse_row_218), (219, mozjs_parse_row_219), (220, mozjs_parse_row_220),
     (221, mozjs_parse_row_221), (222, mozjs_parse_row_222), (223, mozjs_parse_row_223),
     (224, mozjs_parse_row_224), (225, mozjs_parse_row_225), (226, mozjs_parse_row_226),
     (227, mozjs_parse_row_227), (228, mozjs_parse_row_228), (229, mozjs_parse_row_229),
     (230, mozjs_parse_row_230), (231, mozjs_parse_row_231), (232, mozjs_parse_row_232),
     (233, mozjs_parse_row_233), (234, mozjs_parse_row_234), (235, mozjs_parse_row_235),
     (236, mozjs_parse_row_236), (237, mozjs_parse_row_237), (238, mozjs_parse_row_238),
     (239, mozjs_parse_row_239)]"

definition mozjs_parse_rows_6 :: "(nat \<times> (TSSymbol \<times> nat) list) list" where
  "mozjs_parse_rows_6 =
    [(240, mozjs_parse_row_240), (241, mozjs_parse_row_241), (242, mozjs_parse_row_242),
     (243, mozjs_parse_row_243), (244, mozjs_parse_row_244), (245, mozjs_parse_row_245),
     (246, mozjs_parse_row_246), (247, mozjs_parse_row_247), (248, mozjs_parse_row_248),
     (249, mozjs_parse_row_249), (250, mozjs_parse_row_250), (251, mozjs_parse_row_251),
     (252, mozjs_parse_row_252), (253, mozjs_parse_row_253), (254, mozjs_parse_row_254),
     (255, mozjs_parse_row_255), (256, mozjs_parse_row_256), (257, mozjs_parse_row_257),
     (258, mozjs_parse_row_258), (259, mozjs_parse_row_259), (260, mozjs_parse_row_260),
     (261, mozjs_parse_row_261), (262, mozjs_parse_row_262), (263, mozjs_parse_row_263),
     (264, mozjs_parse_row_264), (265, mozjs_parse_row_265), (266, mozjs_parse_row_266),
     (267, mozjs_parse_row_267), (268, mozjs_parse_row_268), (269, mozjs_parse_row_269),
     (270, mozjs_parse_row_270), (271, mozjs_parse_row_271), (272, mozjs_parse_row_272),
     (273, mozjs_parse_row_273), (274, mozjs_parse_row_274), (275, mozjs_parse_row_275),
     (276, mozjs_parse_row_276), (277, mozjs_parse_row_277), (278, mozjs_parse_row_278),
     (279, mozjs_parse_row_279)]"

definition mozjs_parse_rows_7 :: "(nat \<times> (TSSymbol \<times> nat) list) list" where
  "mozjs_parse_rows_7 =
    [(280, mozjs_parse_row_280), (281, mozjs_parse_row_281), (282, mozjs_parse_row_282),
     (283, mozjs_parse_row_283), (284, mozjs_parse_row_284), (285, mozjs_parse_row_285),
     (286, mozjs_parse_row_286), (287, mozjs_parse_row_287), (288, mozjs_parse_row_288),
     (289, mozjs_parse_row_289), (290, mozjs_parse_row_290), (291, mozjs_parse_row_291),
     (292, mozjs_parse_row_292), (293, mozjs_parse_row_293), (294, mozjs_parse_row_294),
     (295, mozjs_parse_row_295), (296, mozjs_parse_row_296), (297, mozjs_parse_row_297),
     (298, mozjs_parse_row_298), (299, mozjs_parse_row_299), (300, mozjs_parse_row_300),
     (301, mozjs_parse_row_301), (302, mozjs_parse_row_302), (303, mozjs_parse_row_303),
     (304, mozjs_parse_row_304), (305, mozjs_parse_row_305), (306, mozjs_parse_row_306),
     (307, mozjs_parse_row_307), (308, mozjs_parse_row_308), (309, mozjs_parse_row_309),
     (310, mozjs_parse_row_310), (311, mozjs_parse_row_311), (312, mozjs_parse_row_312),
     (313, mozjs_parse_row_313), (314, mozjs_parse_row_314), (315, mozjs_parse_row_315),
     (316, mozjs_parse_row_316), (317, mozjs_parse_row_317), (318, mozjs_parse_row_318),
     (319, mozjs_parse_row_319)]"

definition mozjs_parse_rows_8 :: "(nat \<times> (TSSymbol \<times> nat) list) list" where
  "mozjs_parse_rows_8 =
    [(320, mozjs_parse_row_320), (321, mozjs_parse_row_321), (322, mozjs_parse_row_322),
     (323, mozjs_parse_row_323), (324, mozjs_parse_row_324), (325, mozjs_parse_row_325),
     (326, mozjs_parse_row_326), (327, mozjs_parse_row_327), (328, mozjs_parse_row_328),
     (329, mozjs_parse_row_329), (330, mozjs_parse_row_330), (331, mozjs_parse_row_331),
     (332, mozjs_parse_row_332), (333, mozjs_parse_row_333), (334, mozjs_parse_row_334),
     (335, mozjs_parse_row_335), (336, mozjs_parse_row_336), (337, mozjs_parse_row_337),
     (338, mozjs_parse_row_338), (339, mozjs_parse_row_339), (340, mozjs_parse_row_340),
     (341, mozjs_parse_row_341), (342, mozjs_parse_row_342), (343, mozjs_parse_row_343),
     (344, mozjs_parse_row_344), (345, mozjs_parse_row_345), (346, mozjs_parse_row_346),
     (347, mozjs_parse_row_347), (348, mozjs_parse_row_348), (349, mozjs_parse_row_349),
     (350, mozjs_parse_row_350), (351, mozjs_parse_row_351), (352, mozjs_parse_row_352),
     (353, mozjs_parse_row_353), (354, mozjs_parse_row_354), (355, mozjs_parse_row_355),
     (356, mozjs_parse_row_356), (357, mozjs_parse_row_357), (358, mozjs_parse_row_358),
     (359, mozjs_parse_row_359)]"

definition mozjs_parse_rows_9 :: "(nat \<times> (TSSymbol \<times> nat) list) list" where
  "mozjs_parse_rows_9 =
    [(360, mozjs_parse_row_360), (361, mozjs_parse_row_361), (362, mozjs_parse_row_362),
     (363, mozjs_parse_row_363), (364, mozjs_parse_row_364), (365, mozjs_parse_row_365),
     (366, mozjs_parse_row_366), (367, mozjs_parse_row_367), (368, mozjs_parse_row_368),
     (369, mozjs_parse_row_369), (370, mozjs_parse_row_370), (371, mozjs_parse_row_371),
     (372, mozjs_parse_row_372), (373, mozjs_parse_row_373), (374, mozjs_parse_row_374),
     (375, mozjs_parse_row_375), (376, mozjs_parse_row_376), (377, mozjs_parse_row_377),
     (378, mozjs_parse_row_378), (379, mozjs_parse_row_379), (380, mozjs_parse_row_380),
     (381, mozjs_parse_row_381), (382, mozjs_parse_row_382), (383, mozjs_parse_row_383),
     (384, mozjs_parse_row_384), (385, mozjs_parse_row_385), (386, mozjs_parse_row_386),
     (387, mozjs_parse_row_387)]"

definition mozjs_ts_parse_table :: "(nat \<times> (TSSymbol \<times> nat) list) list" where
  "mozjs_ts_parse_table = mozjs_parse_rows_0 @ mozjs_parse_rows_1 @ mozjs_parse_rows_2 @
    mozjs_parse_rows_3 @ mozjs_parse_rows_4 @ mozjs_parse_rows_5 @ mozjs_parse_rows_6 @
    mozjs_parse_rows_7 @ mozjs_parse_rows_8 @ mozjs_parse_rows_9"

lemmas mozjs_parse_rows_0_defs =
  mozjs_parse_rows_0_def mozjs_parse_row_0_def mozjs_parse_row_1_def mozjs_parse_row_2_def
    mozjs_parse_row_3_def mozjs_parse_row_4_def mozjs_parse_row_5_def mozjs_parse_row_6_def
    mozjs_parse_row_7_def mozjs_parse_row_8_def mozjs_parse_row_9_def mozjs_parse_row_10_def
    mozjs_parse_row_11_def mozjs_parse_row_12_def mozjs_parse_row_13_def mozjs_parse_row_14_def
    mozjs_parse_row_15_def mozjs_parse_row_16_def mozjs_parse_row_17_def mozjs_parse_row_18_def
    mozjs_parse_row_19_def mozjs_parse_row_20_def mozjs_parse_row_21_def mozjs_parse_row_22_def
    mozjs_parse_row_23_def mozjs_parse_row_24_def mozjs_parse_row_25_def mozjs_parse_row_26_def
    mozjs_parse_row_27_def mozjs_parse_row_28_def mozjs_parse_row_29_def mozjs_parse_row_30_def
    mozjs_parse_row_31_def mozjs_parse_row_32_def mozjs_parse_row_33_def mozjs_parse_row_34_def
    mozjs_parse_row_35_def mozjs_parse_row_36_def mozjs_parse_row_37_def mozjs_parse_row_38_def
    mozjs_parse_row_39_def

lemmas mozjs_parse_rows_1_defs =
  mozjs_parse_rows_1_def mozjs_parse_row_40_def mozjs_parse_row_41_def mozjs_parse_row_42_def
    mozjs_parse_row_43_def mozjs_parse_row_44_def mozjs_parse_row_45_def mozjs_parse_row_46_def
    mozjs_parse_row_47_def mozjs_parse_row_48_def mozjs_parse_row_49_def mozjs_parse_row_50_def
    mozjs_parse_row_51_def mozjs_parse_row_52_def mozjs_parse_row_53_def mozjs_parse_row_54_def
    mozjs_parse_row_55_def mozjs_parse_row_56_def mozjs_parse_row_57_def mozjs_parse_row_58_def
    mozjs_parse_row_59_def mozjs_parse_row_60_def mozjs_parse_row_61_def mozjs_parse_row_62_def
    mozjs_parse_row_63_def mozjs_parse_row_64_def mozjs_parse_row_65_def mozjs_parse_row_66_def
    mozjs_parse_row_67_def mozjs_parse_row_68_def mozjs_parse_row_69_def mozjs_parse_row_70_def
    mozjs_parse_row_71_def mozjs_parse_row_72_def mozjs_parse_row_73_def mozjs_parse_row_74_def
    mozjs_parse_row_75_def mozjs_parse_row_76_def mozjs_parse_row_77_def mozjs_parse_row_78_def
    mozjs_parse_row_79_def

lemmas mozjs_parse_rows_2_defs =
  mozjs_parse_rows_2_def mozjs_parse_row_80_def mozjs_parse_row_81_def mozjs_parse_row_82_def
    mozjs_parse_row_83_def mozjs_parse_row_84_def mozjs_parse_row_85_def mozjs_parse_row_86_def
    mozjs_parse_row_87_def mozjs_parse_row_88_def mozjs_parse_row_89_def mozjs_parse_row_90_def
    mozjs_parse_row_91_def mozjs_parse_row_92_def mozjs_parse_row_93_def mozjs_parse_row_94_def
    mozjs_parse_row_95_def mozjs_parse_row_96_def mozjs_parse_row_97_def mozjs_parse_row_98_def
    mozjs_parse_row_99_def mozjs_parse_row_100_def mozjs_parse_row_101_def
    mozjs_parse_row_102_def mozjs_parse_row_103_def mozjs_parse_row_104_def
    mozjs_parse_row_105_def mozjs_parse_row_106_def mozjs_parse_row_107_def
    mozjs_parse_row_108_def mozjs_parse_row_109_def mozjs_parse_row_110_def
    mozjs_parse_row_111_def mozjs_parse_row_112_def mozjs_parse_row_113_def
    mozjs_parse_row_114_def mozjs_parse_row_115_def mozjs_parse_row_116_def
    mozjs_parse_row_117_def mozjs_parse_row_118_def mozjs_parse_row_119_def

lemmas mozjs_parse_rows_3_defs =
  mozjs_parse_rows_3_def mozjs_parse_row_120_def mozjs_parse_row_121_def mozjs_parse_row_122_def
    mozjs_parse_row_123_def mozjs_parse_row_124_def mozjs_parse_row_125_def
    mozjs_parse_row_126_def mozjs_parse_row_127_def mozjs_parse_row_128_def
    mozjs_parse_row_129_def mozjs_parse_row_130_def mozjs_parse_row_131_def
    mozjs_parse_row_132_def mozjs_parse_row_133_def mozjs_parse_row_134_def
    mozjs_parse_row_135_def mozjs_parse_row_136_def mozjs_parse_row_137_def
    mozjs_parse_row_138_def mozjs_parse_row_139_def mozjs_parse_row_140_def
    mozjs_parse_row_141_def mozjs_parse_row_142_def mozjs_parse_row_143_def
    mozjs_parse_row_144_def mozjs_parse_row_145_def mozjs_parse_row_146_def
    mozjs_parse_row_147_def mozjs_parse_row_148_def mozjs_parse_row_149_def
    mozjs_parse_row_150_def mozjs_parse_row_151_def mozjs_parse_row_152_def
    mozjs_parse_row_153_def mozjs_parse_row_154_def mozjs_parse_row_155_def
    mozjs_parse_row_156_def mozjs_parse_row_157_def mozjs_parse_row_158_def
    mozjs_parse_row_159_def

lemmas mozjs_parse_rows_4_defs =
  mozjs_parse_rows_4_def mozjs_parse_row_160_def mozjs_parse_row_161_def mozjs_parse_row_162_def
    mozjs_parse_row_163_def mozjs_parse_row_164_def mozjs_parse_row_165_def
    mozjs_parse_row_166_def mozjs_parse_row_167_def mozjs_parse_row_168_def
    mozjs_parse_row_169_def mozjs_parse_row_170_def mozjs_parse_row_171_def
    mozjs_parse_row_172_def mozjs_parse_row_173_def mozjs_parse_row_174_def
    mozjs_parse_row_175_def mozjs_parse_row_176_def mozjs_parse_row_177_def
    mozjs_parse_row_178_def mozjs_parse_row_179_def mozjs_parse_row_180_def
    mozjs_parse_row_181_def mozjs_parse_row_182_def mozjs_parse_row_183_def
    mozjs_parse_row_184_def mozjs_parse_row_185_def mozjs_parse_row_186_def
    mozjs_parse_row_187_def mozjs_parse_row_188_def mozjs_parse_row_189_def
    mozjs_parse_row_190_def mozjs_parse_row_191_def mozjs_parse_row_192_def
    mozjs_parse_row_193_def mozjs_parse_row_194_def mozjs_parse_row_195_def
    mozjs_parse_row_196_def mozjs_parse_row_197_def mozjs_parse_row_198_def
    mozjs_parse_row_199_def

lemmas mozjs_parse_rows_5_defs =
  mozjs_parse_rows_5_def mozjs_parse_row_200_def mozjs_parse_row_201_def mozjs_parse_row_202_def
    mozjs_parse_row_203_def mozjs_parse_row_204_def mozjs_parse_row_205_def
    mozjs_parse_row_206_def mozjs_parse_row_207_def mozjs_parse_row_208_def
    mozjs_parse_row_209_def mozjs_parse_row_210_def mozjs_parse_row_211_def
    mozjs_parse_row_212_def mozjs_parse_row_213_def mozjs_parse_row_214_def
    mozjs_parse_row_215_def mozjs_parse_row_216_def mozjs_parse_row_217_def
    mozjs_parse_row_218_def mozjs_parse_row_219_def mozjs_parse_row_220_def
    mozjs_parse_row_221_def mozjs_parse_row_222_def mozjs_parse_row_223_def
    mozjs_parse_row_224_def mozjs_parse_row_225_def mozjs_parse_row_226_def
    mozjs_parse_row_227_def mozjs_parse_row_228_def mozjs_parse_row_229_def
    mozjs_parse_row_230_def mozjs_parse_row_231_def mozjs_parse_row_232_def
    mozjs_parse_row_233_def mozjs_parse_row_234_def mozjs_parse_row_235_def
    mozjs_parse_row_236_def mozjs_parse_row_237_def mozjs_parse_row_238_def
    mozjs_parse_row_239_def

lemmas mozjs_parse_rows_6_defs =
  mozjs_parse_rows_6_def mozjs_parse_row_240_def mozjs_parse_row_241_def mozjs_parse_row_242_def
    mozjs_parse_row_243_def mozjs_parse_row_244_def mozjs_parse_row_245_def
    mozjs_parse_row_246_def mozjs_parse_row_247_def mozjs_parse_row_248_def
    mozjs_parse_row_249_def mozjs_parse_row_250_def mozjs_parse_row_251_def
    mozjs_parse_row_252_def mozjs_parse_row_253_def mozjs_parse_row_254_def
    mozjs_parse_row_255_def mozjs_parse_row_256_def mozjs_parse_row_257_def
    mozjs_parse_row_258_def mozjs_parse_row_259_def mozjs_parse_row_260_def
    mozjs_parse_row_261_def mozjs_parse_row_262_def mozjs_parse_row_263_def
    mozjs_parse_row_264_def mozjs_parse_row_265_def mozjs_parse_row_266_def
    mozjs_parse_row_267_def mozjs_parse_row_268_def mozjs_parse_row_269_def
    mozjs_parse_row_270_def mozjs_parse_row_271_def mozjs_parse_row_272_def
    mozjs_parse_row_273_def mozjs_parse_row_274_def mozjs_parse_row_275_def
    mozjs_parse_row_276_def mozjs_parse_row_277_def mozjs_parse_row_278_def
    mozjs_parse_row_279_def

lemmas mozjs_parse_rows_7_defs =
  mozjs_parse_rows_7_def mozjs_parse_row_280_def mozjs_parse_row_281_def mozjs_parse_row_282_def
    mozjs_parse_row_283_def mozjs_parse_row_284_def mozjs_parse_row_285_def
    mozjs_parse_row_286_def mozjs_parse_row_287_def mozjs_parse_row_288_def
    mozjs_parse_row_289_def mozjs_parse_row_290_def mozjs_parse_row_291_def
    mozjs_parse_row_292_def mozjs_parse_row_293_def mozjs_parse_row_294_def
    mozjs_parse_row_295_def mozjs_parse_row_296_def mozjs_parse_row_297_def
    mozjs_parse_row_298_def mozjs_parse_row_299_def mozjs_parse_row_300_def
    mozjs_parse_row_301_def mozjs_parse_row_302_def mozjs_parse_row_303_def
    mozjs_parse_row_304_def mozjs_parse_row_305_def mozjs_parse_row_306_def
    mozjs_parse_row_307_def mozjs_parse_row_308_def mozjs_parse_row_309_def
    mozjs_parse_row_310_def mozjs_parse_row_311_def mozjs_parse_row_312_def
    mozjs_parse_row_313_def mozjs_parse_row_314_def mozjs_parse_row_315_def
    mozjs_parse_row_316_def mozjs_parse_row_317_def mozjs_parse_row_318_def
    mozjs_parse_row_319_def

lemmas mozjs_parse_rows_8_defs =
  mozjs_parse_rows_8_def mozjs_parse_row_320_def mozjs_parse_row_321_def mozjs_parse_row_322_def
    mozjs_parse_row_323_def mozjs_parse_row_324_def mozjs_parse_row_325_def
    mozjs_parse_row_326_def mozjs_parse_row_327_def mozjs_parse_row_328_def
    mozjs_parse_row_329_def mozjs_parse_row_330_def mozjs_parse_row_331_def
    mozjs_parse_row_332_def mozjs_parse_row_333_def mozjs_parse_row_334_def
    mozjs_parse_row_335_def mozjs_parse_row_336_def mozjs_parse_row_337_def
    mozjs_parse_row_338_def mozjs_parse_row_339_def mozjs_parse_row_340_def
    mozjs_parse_row_341_def mozjs_parse_row_342_def mozjs_parse_row_343_def
    mozjs_parse_row_344_def mozjs_parse_row_345_def mozjs_parse_row_346_def
    mozjs_parse_row_347_def mozjs_parse_row_348_def mozjs_parse_row_349_def
    mozjs_parse_row_350_def mozjs_parse_row_351_def mozjs_parse_row_352_def
    mozjs_parse_row_353_def mozjs_parse_row_354_def mozjs_parse_row_355_def
    mozjs_parse_row_356_def mozjs_parse_row_357_def mozjs_parse_row_358_def
    mozjs_parse_row_359_def

lemmas mozjs_parse_rows_9_defs =
  mozjs_parse_rows_9_def mozjs_parse_row_360_def mozjs_parse_row_361_def mozjs_parse_row_362_def
    mozjs_parse_row_363_def mozjs_parse_row_364_def mozjs_parse_row_365_def
    mozjs_parse_row_366_def mozjs_parse_row_367_def mozjs_parse_row_368_def
    mozjs_parse_row_369_def mozjs_parse_row_370_def mozjs_parse_row_371_def
    mozjs_parse_row_372_def mozjs_parse_row_373_def mozjs_parse_row_374_def
    mozjs_parse_row_375_def mozjs_parse_row_376_def mozjs_parse_row_377_def
    mozjs_parse_row_378_def mozjs_parse_row_379_def mozjs_parse_row_380_def
    mozjs_parse_row_381_def mozjs_parse_row_382_def mozjs_parse_row_383_def
    mozjs_parse_row_384_def mozjs_parse_row_385_def mozjs_parse_row_386_def
    mozjs_parse_row_387_def

end
