(* ===== verification/Mozjs_Runs.thy ===== *)
theory Mozjs_Runs
  imports Mozjs_Lex Lr_Tables
begin

text \<open>
  The parse table of the small states of the JavaScript grammar (\<^verbatim>\<open>ts_small_parse_table\<close>
  of \<^verbatim>\<open>tree-sitter-mozjs/src/parser.c\<close>), one definition per designated run, and its index,
  \<^verbatim>\<open>ts_small_parse_table_map\<close>.
\<close>

section \<open>The runs\<close>

definition mozjs_small_run_0 :: "nat list" where
  "mozjs_small_run_0 =
    [4, 5, 2, mozjs_sym_html_comment, mozjs_sym_comment, 1151, 2, mozjs_sym__automatic_semicolon,
      mozjs_anon_sym_SEMI, 1147, 16, ts_builtin_sym_end, mozjs_anon_sym_LBRACE,
      mozjs_anon_sym_RBRACE, mozjs_anon_sym_LPAREN, mozjs_anon_sym_LBRACK, mozjs_anon_sym_LT,
      mozjs_anon_sym_DQUOTE, mozjs_anon_sym_SQUOTE, mozjs_anon_sym_BANG, mozjs_anon_sym_TILDE,
      mozjs_anon_sym_PLUS_PLUS, mozjs_anon_sym_DASH_DASH, mozjs_anon_sym_BQUOTE,
      mozjs_sym_number, mozjs_anon_sym_AT, mozjs_sym_preproc, 1149, 44, mozjs_anon_sym_export,
      mozjs_anon_sym_default, mozjs_anon_sym_import, mozjs_anon_sym_with, mozjs_anon_sym_var,
      mozjs_anon_sym_let, mozjs_anon_sym_const, mozjs_anon_sym_using, mozjs_anon_sym_await,
      mozjs_anon_sym_else, mozjs_anon_sym_if, mozjs_anon_sym_switch, mozjs_anon_sym_for,
      mozjs_anon_sym_while, mozjs_anon_sym_do, mozjs_anon_sym_try, mozjs_anon_sym_break,
      mozjs_anon_sym_continue, mozjs_anon_sym_debugger, mozjs_anon_sym_return,
      mozjs_anon_sym_throw, mozjs_anon_sym_case, mozjs_anon_sym_yield, mozjs_anon_sym_class,
      mozjs_anon_sym_async, mozjs_anon_sym_function, mozjs_anon_sym_new, mozjs_anon_sym_PLUS,
      mozjs_anon_sym_DASH, mozjs_anon_sym_SLASH, mozjs_anon_sym_typeof, mozjs_anon_sym_void,
      mozjs_anon_sym_delete, mozjs_sym_identifier, mozjs_sym_private_property_identifier,
      mozjs_sym_this, mozjs_sym_super, mozjs_sym_true, mozjs_sym_false, mozjs_sym_null,
      mozjs_sym_undefined, mozjs_anon_sym_static, mozjs_anon_sym_get, mozjs_anon_sym_set]"

definition mozjs_small_run_73 :: "nat list" where
  "mozjs_small_run_73 =
    [11, 342, 1, mozjs_anon_sym_EQ_GT, 499, 1, mozjs_anon_sym_EQ, 1104, 1, mozjs_anon_sym_LPAREN,
      1131, 1, mozjs_sym_identifier, 1141, 1, mozjs_anon_sym_function, 1813, 1,
      mozjs_sym_formal_parameters, 5, 2, mozjs_sym_html_comment, mozjs_sym_comment, 1133, 7,
      mozjs_anon_sym_export, mozjs_anon_sym_let, mozjs_anon_sym_await, mozjs_anon_sym_async,
      mozjs_anon_sym_static, mozjs_anon_sym_get, mozjs_anon_sym_set, 311, 13,
      mozjs_sym__automatic_semicolon, mozjs_sym__ternary_qmark, mozjs_anon_sym_SEMI,
      mozjs_anon_sym_LBRACK, mozjs_anon_sym_DOT, mozjs_sym_optional_chain, mozjs_anon_sym_LT_EQ,
      mozjs_anon_sym_EQ_EQ_EQ, mozjs_anon_sym_BANG_EQ_EQ, mozjs_anon_sym_GT_EQ,
      mozjs_anon_sym_PLUS_PLUS, mozjs_anon_sym_DASH_DASH, mozjs_anon_sym_BQUOTE, 344, 15,
      mozjs_anon_sym_PLUS_EQ, mozjs_anon_sym_DASH_EQ, mozjs_anon_sym_STAR_EQ,
      mozjs_anon_sym_SLASH_EQ, mozjs_anon_sym_PERCENT_EQ, mozjs_anon_sym_CARET_EQ,
      mozjs_anon_sym_AMP_EQ, mozjs_anon_sym_PIPE_EQ, mozjs_anon_sym_GT_GT_EQ,
      mozjs_anon_sym_GT_GT_GT_EQ, mozjs_anon_sym_LT_LT_EQ, mozjs_anon_sym_STAR_STAR_EQ,
      mozjs_anon_sym_AMP_AMP_EQ, mozjs_anon_sym_PIPE_PIPE_EQ, mozjs_anon_sym_QMARK_QMARK_EQ, 307,
      21, mozjs_anon_sym_STAR, mozjs_anon_sym_in, mozjs_anon_sym_LT, mozjs_anon_sym_GT,
      mozjs_anon_sym_AMP_AMP, mozjs_anon_sym_PIPE_PIPE, mozjs_anon_sym_GT_GT,
      mozjs_anon_sym_GT_GT_GT, mozjs_anon_sym_LT_LT, mozjs_anon_sym_AMP, mozjs_anon_sym_CARET,
      mozjs_anon_sym_PIPE, mozjs_anon_sym_PLUS, mozjs_anon_sym_DASH, mozjs_anon_sym_SLASH,
      mozjs_anon_sym_PERCENT, mozjs_anon_sym_STAR_STAR, mozjs_anon_sym_EQ_EQ,
      mozjs_anon_sym_BANG_EQ, mozjs_anon_sym_QMARK_QMARK, mozjs_anon_sym_instanceof]"

definition mozjs_small_run_160 :: "nat list" where
  "mozjs_small_run_160 =
    [3, 5, 2, mozjs_sym_html_comment, mozjs_sym_comment, 1153, 17, ts_builtin_sym_end,
      mozjs_anon_sym_LBRACE, mozjs_anon_sym_RBRACE, mozjs_anon_sym_LPAREN, mozjs_anon_sym_SEMI,
      mozjs_anon_sym_LBRACK, mozjs_anon_sym_LT, mozjs_anon_sym_DQUOTE, mozjs_anon_sym_SQUOTE,
      mozjs_anon_sym_BANG, mozjs_anon_sym_TILDE, mozjs_anon_sym_PLUS_PLUS,
      mozjs_anon_sym_DASH_DASH, mozjs_anon_sym_BQUOTE, mozjs_sym_number, mozjs_anon_sym_AT,
      mozjs_sym_preproc, 1155, 45, mozjs_anon_sym_export, mozjs_anon_sym_default,
      mozjs_anon_sym_import, mozjs_anon_sym_with, mozjs_anon_sym_var, mozjs_anon_sym_let,
      mozjs_anon_sym_const, mozjs_anon_sym_using, mozjs_anon_sym_await, mozjs_anon_sym_else,
      mozjs_anon_sym_if, mozjs_anon_sym_switch, mozjs_anon_sym_for, mozjs_anon_sym_while,
      mozjs_anon_sym_do, mozjs_anon_sym_try, mozjs_anon_sym_break, mozjs_anon_sym_continue,
      mozjs_anon_sym_debugger, mozjs_anon_sym_return, mozjs_anon_sym_throw, mozjs_anon_sym_case,
      mozjs_anon_sym_finally, mozjs_anon_sym_yield, mozjs_anon_sym_class, mozjs_anon_sym_async,
      mozjs_anon_sym_function, mozjs_anon_sym_new, mozjs_anon_sym_PLUS, mozjs_anon_sym_DASH,
      mozjs_anon_sym_SLASH, mozjs_anon_sym_typeof, mozjs_anon_sym_void, mozjs_anon_sym_delete,
      mozjs_sym_identifier, mozjs_sym_private_property_identifier, mozjs_sym_this,
      mozjs_sym_super, mozjs_sym_true, mozjs_sym_false, mozjs_sym_null, mozjs_sym_undefined,
      mozjs_anon_sym_static, mozjs_anon_sym_get, mozjs_anon_sym_set]"

definition mozjs_small_run_231 :: "nat list" where
  "mozjs_small_run_231 =
    [11, 342, 1, mozjs_anon_sym_EQ_GT, 499, 1, mozjs_anon_sym_EQ, 1088, 1,
      mozjs_anon_sym_function, 1104, 1, mozjs_anon_sym_LPAREN, 1131, 1, mozjs_sym_identifier,
      1813, 1, mozjs_sym_formal_parameters, 5, 2, mozjs_sym_html_comment, mozjs_sym_comment,
      1133, 7, mozjs_anon_sym_export, mozjs_anon_sym_let, mozjs_anon_sym_await,
      mozjs_anon_sym_async, mozjs_anon_sym_static, mozjs_anon_sym_get, mozjs_anon_sym_set, 311,
      13, mozjs_sym__automatic_semicolon, mozjs_sym__ternary_qmark, mozjs_anon_sym_SEMI,
      mozjs_anon_sym_LBRACK, mozjs_anon_sym_DOT, mozjs_sym_optional_chain, mozjs_anon_sym_LT_EQ,
      mozjs_anon_sym_EQ_EQ_EQ, mozjs_anon_sym_BANG_EQ_EQ, mozjs_anon_sym_GT_EQ,
      mozjs_anon_sym_PLUS_PLUS, mozjs_anon_sym_DASH_DASH, mozjs_anon_sym_BQUOTE, 344, 15,
      mozjs_anon_sym_PLUS_EQ, mozjs_anon_sym_DASH_EQ, mozjs_anon_sym_STAR_EQ,
      mozjs_anon_sym_SLASH_EQ, mozjs_anon_sym_PERCENT_EQ, mozjs_anon_sym_CARET_EQ,
      mozjs_anon_sym_AMP_EQ, mozjs_anon_sym_PIPE_EQ, mozjs_anon_sym_GT_GT_EQ,
      mozjs_anon_sym_GT_GT_GT_EQ, mozjs_anon_sym_LT_LT_EQ, mozjs_anon_sym_STAR_STAR_EQ,
      mozjs_anon_sym_AMP_AMP_EQ, mozjs_anon_sym_PIPE_PIPE_EQ, mozjs_anon_sym_QMARK_QMARK_EQ, 307,
      21, mozjs_anon_sym_STAR, mozjs_anon_sym_in, mozjs_anon_sym_LT, mozjs_anon_sym_GT,
      mozjs_anon_sym_AMP_AMP, mozjs_anon_sym_PIPE_PIPE, mozjs_anon_sym_GT_GT,
      mozjs_anon_sym_GT_GT_GT, mozjs_anon_sym_LT_LT, mozjs_anon_sym_AMP, mozjs_anon_sym_CARET,
      mozjs_anon_sym_PIPE, mozjs_anon_sym_PLUS, mozjs_anon_sym_DASH, mozjs_anon_sym_SLASH,
      mozjs_anon_sym_PERCENT, mozjs_anon_sym_STAR_STAR, mozjs_anon_sym_EQ_EQ,
      mozjs_anon_sym_BANG_EQ, mozjs_anon_sym_QMARK_QMARK, mozjs_anon_sym_instanceof]"

definition mozjs_small_run_318 :: "nat list" where
  "mozjs_small_run_318 =
    [13, 417, 1, mozjs_anon_sym_EQ_GT, 529, 1, mozjs_anon_sym_COMMA, 538, 1,
      mozjs_anon_sym_RBRACK, 541, 1, mozjs_anon_sym_EQ, 1100, 1, mozjs_sym_identifier, 1104, 1,
      mozjs_anon_sym_LPAREN, 1107, 1, mozjs_anon_sym_function, 1848, 1,
      mozjs_sym_formal_parameters, 5, 2, mozjs_sym_html_comment, mozjs_sym_comment, 1102, 7,
      mozjs_anon_sym_export, mozjs_anon_sym_let, mozjs_anon_sym_await, mozjs_anon_sym_async,
      mozjs_anon_sym_static, mozjs_anon_sym_get, mozjs_anon_sym_set, 311, 11,
      mozjs_sym__ternary_qmark, mozjs_anon_sym_LBRACK, mozjs_anon_sym_DOT,
      mozjs_sym_optional_chain, mozjs_anon_sym_LT_EQ, mozjs_anon_sym_EQ_EQ_EQ,
      mozjs_anon_sym_BANG_EQ_EQ, mozjs_anon_sym_GT_EQ, mozjs_anon_sym_PLUS_PLUS,
      mozjs_anon_sym_DASH_DASH, mozjs_anon_sym_BQUOTE, 344, 15, mozjs_anon_sym_PLUS_EQ,
      mozjs_anon_sym_DASH_EQ, mozjs_anon_sym_STAR_EQ, mozjs_anon_sym_SLASH_EQ,
      mozjs_anon_sym_PERCENT_EQ, mozjs_anon_sym_CARET_EQ, mozjs_anon_sym_AMP_EQ,
      mozjs_anon_sym_PIPE_EQ, mozjs_anon_sym_GT_GT_EQ, mozjs_anon_sym_GT_GT_GT_EQ,
      mozjs_anon_sym_LT_LT_EQ, mozjs_anon_sym_STAR_STAR_EQ, mozjs_anon_sym_AMP_AMP_EQ,
      mozjs_anon_sym_PIPE_PIPE_EQ, mozjs_anon_sym_QMARK_QMARK_EQ, 307, 21, mozjs_anon_sym_STAR,
      mozjs_anon_sym_in, mozjs_anon_sym_LT, mozjs_anon_sym_GT, mozjs_anon_sym_AMP_AMP,
      mozjs_anon_sym_PIPE_PIPE, mozjs_anon_sym_GT_GT, mozjs_anon_sym_GT_GT_GT,
      mozjs_anon_sym_LT_LT, mozjs_anon_sym_AMP, mozjs_anon_sym_CARET, mozjs_anon_sym_PIPE,
      mozjs_anon_sym_PLUS, mozjs_anon_sym_DASH, mozjs_anon_sym_SLASH, mozjs_anon_sym_PERCENT,
      mozjs_anon_sym_STAR_STAR, mozjs_anon_sym_EQ_EQ, mozjs_anon_sym_BANG_EQ,
      mozjs_anon_sym_QMARK_QMARK, mozjs_anon_sym_instanceof]"

definition mozjs_small_run_409 :: "nat list" where
  "mozjs_small_run_409 =
    [3, 5, 2, mozjs_sym_html_comment, mozjs_sym_comment, 717, 18, mozjs_sym__automatic_semicolon,
      ts_builtin_sym_end, mozjs_anon_sym_LBRACE, mozjs_anon_sym_RBRACE, mozjs_anon_sym_LPAREN,
      mozjs_anon_sym_SEMI, mozjs_anon_sym_LBRACK, mozjs_anon_sym_LT, mozjs_anon_sym_DQUOTE,
      mozjs_anon_sym_SQUOTE, mozjs_anon_sym_BANG, mozjs_anon_sym_TILDE, mozjs_anon_sym_PLUS_PLUS,
      mozjs_anon_sym_DASH_DASH, mozjs_anon_sym_BQUOTE, mozjs_sym_number, mozjs_anon_sym_AT,
      mozjs_sym_preproc, 719, 44, mozjs_anon_sym_export, mozjs_anon_sym_default,
      mozjs_anon_sym_import, mozjs_anon_sym_with, mozjs_anon_sym_var, mozjs_anon_sym_let,
      mozjs_anon_sym_const, mozjs_anon_sym_using, mozjs_anon_sym_await, mozjs_anon_sym_else,
      mozjs_anon_sym_if, mozjs_anon_sym_switch, mozjs_anon_sym_for, mozjs_anon_sym_while,
      mozjs_anon_sym_do, mozjs_anon_sym_try, mozjs_anon_sym_break, mozjs_anon_sym_continue,
      mozjs_anon_sym_debugger, mozjs_anon_sym_return, mozjs_anon_sym_throw, mozjs_anon_sym_case,
      mozjs_anon_sym_yield, mozjs_anon_sym_class, mozjs_anon_sym_async, mozjs_anon_sym_function,
      mozjs_anon_sym_new, mozjs_anon_sym_PLUS, mozjs_anon_sym_DASH, mozjs_anon_sym_SLASH,
      mozjs_anon_sym_typeof, mozjs_anon_sym_void, mozjs_anon_sym_delete, mozjs_sym_identifier,
      mozjs_sym_private_property_identifier, mozjs_sym_this, mozjs_sym_super, mozjs_sym_true,
      mozjs_sym_false, mozjs_sym_null, mozjs_sym_undefined, mozjs_anon_sym_static,
      mozjs_anon_sym_get, mozjs_anon_sym_set]"

definition mozjs_small_run_480 :: "nat list" where
  "mozjs_small_run_480 =
    [3, 5, 2, mozjs_sym_html_comment, mozjs_sym_comment, 709, 18, mozjs_sym__automatic_semicolon,
      ts_builtin_sym_end, mozjs_anon_sym_LBRACE, mozjs_anon_sym_RBRACE, mozjs_anon_sym_LPAREN,
      mozjs_anon_sym_SEMI, mozjs_anon_sym_LBRACK, mozjs_anon_sym_LT, mozjs_anon_sym_DQUOTE,
      mozjs_anon_sym_SQUOTE, mozjs_anon_sym_BANG, mozjs_anon_sym_TILDE, mozjs_anon_sym_PLUS_PLUS,
      mozjs_anon_sym_DASH_DASH, mozjs_anon_sym_BQUOTE, mozjs_sym_number, mozjs_anon_sym_AT,
      mozjs_sym_preproc, 711, 44, mozjs_anon_sym_export, mozjs_anon_sym_default,
      mozjs_anon_sym_import, mozjs_anon_sym_with, mozjs_anon_sym_var, mozjs_anon_sym_let,
      mozjs_anon_sym_const, mozjs_anon_sym_using, mozjs_anon_sym_await, mozjs_anon_sym_else,
      mozjs_anon_sym_if, mozjs_anon_sym_switch, mozjs_anon_sym_for, mozjs_anon_sym_while,
      mozjs_anon_sym_do, mozjs_anon_sym_try, mozjs_anon_sym_break, mozjs_anon_sym_continue,
      mozjs_anon_sym_debugger, mozjs_anon_sym_return, mozjs_anon_sym_throw, mozjs_anon_sym_case,
      mozjs_anon_sym_yield, mozjs_anon_sym_class, mozjs_anon_sym_async, mozjs_anon_sym_function,
      mozjs_anon_sym_new, mozjs_anon_sym_PLUS, mozjs_anon_sym_DASH, mozjs_anon_sym_SLASH,
      mozjs_anon_sym_typeof, mozjs_anon_sym_void, mozjs_anon_sym_delete, mozjs_sym_identifier,
      mozjs_sym_private_property_identifier, mozjs_sym_this, mozjs_sym_super, mozjs_sym_true,
      mozjs_sym_false, mozjs_sym_null, mozjs_sym_undefined, mozjs_anon_sym_static,
      mozjs_anon_sym_get, mozjs_anon_sym_set]"

definition mozjs_small_run_551 :: "nat list" where
  "mozjs_small_run_551 =
    [3, 5, 2, mozjs_sym_html_comment, mozjs_sym_comment, 1157, 18,
      mozjs_sym__automatic_semicolon, ts_builtin_sym_end, mozjs_anon_sym_LBRACE,
      mozjs_anon_sym_RBRACE, mozjs_anon_sym_LPAREN, mozjs_anon_sym_SEMI, mozjs_anon_sym_LBRACK,
      mozjs_anon_sym_LT, mozjs_anon_sym_DQUOTE, mozjs_anon_sym_SQUOTE, mozjs_anon_sym_BANG,
      mozjs_anon_sym_TILDE, mozjs_anon_sym_PLUS_PLUS, mozjs_anon_sym_DASH_DASH,
      mozjs_anon_sym_BQUOTE, mozjs_sym_number, mozjs_anon_sym_AT, mozjs_sym_preproc, 1159, 44,
      mozjs_anon_sym_export, mozjs_anon_sym_default, mozjs_anon_sym_import, mozjs_anon_sym_with,
      mozjs_anon_sym_var, mozjs_anon_sym_let, mozjs_anon_sym_const, mozjs_anon_sym_using,
      mozjs_anon_sym_await, mozjs_anon_sym_else, mozjs_anon_sym_if, mozjs_anon_sym_switch,
      mozjs_anon_sym_for, mozjs_anon_sym_while, mozjs_anon_sym_do, mozjs_anon_sym_try,
      mozjs_anon_sym_break, mozjs_anon_sym_continue, mozjs_anon_sym_debugger,
      mozjs_anon_sym_return, mozjs_anon_sym_throw, mozjs_anon_sym_case, mozjs_anon_sym_yield,
      mozjs_anon_sym_class, mozjs_anon_sym_async, mozjs_anon_sym_function, mozjs_anon_sym_new,
      mozjs_anon_sym_PLUS, mozjs_anon_sym_DASH, mozjs_anon_sym_SLASH, mozjs_anon_sym_typeof,
      mozjs_anon_sym_void, mozjs_anon_sym_delete, mozjs_sym_identifier,
      mozjs_sym_private_property_identifier, mozjs_sym_this, mozjs_sym_super, mozjs_sym_true,
      mozjs_sym_false, mozjs_sym_null, mozjs_sym_undefined, mozjs_anon_sym_static,
      mozjs_anon_sym_get, mozjs_anon_sym_set]"

definition mozjs_small_run_622 :: "nat list" where
  "mozjs_small_run_622 =
    [3, 5, 2, mozjs_sym_html_comment, mozjs_sym_comment, 703, 18, mozjs_sym__automatic_semicolon,
      ts_builtin_sym_end, mozjs_anon_sym_LBRACE, mozjs_anon_sym_RBRACE, mozjs_anon_sym_LPAREN,
      mozjs_anon_sym_SEMI, mozjs_anon_sym_LBRACK, mozjs_anon_sym_LT, mozjs_anon_sym_DQUOTE,
      mozjs_anon_sym_SQUOTE, mozjs_anon_sym_BANG, mozjs_anon_sym_TILDE, mozjs_anon_sym_PLUS_PLUS,
      mozjs_anon_sym_DASH_DASH, mozjs_anon_sym_BQUOTE, mozjs_sym_number, mozjs_anon_sym_AT,
      mozjs_sym_preproc, 705, 44, mozjs_anon_sym_export, mozjs_anon_sym_default,
      mozjs_anon_sym_import, mozjs_anon_sym_with, mozjs_anon_sym_var, mozjs_anon_sym_let,
      mozjs_anon_sym_const, mozjs_anon_sym_using, mozjs_anon_sym_await, mozjs_anon_sym_else,
      mozjs_anon_sym_if, mozjs_anon_sym_switch, mozjs_anon_sym_for, mozjs_anon_sym_while,
      mozjs_anon_sym_do, mozjs_anon_sym_try, mozjs_anon_sym_break, mozjs_anon_sym_continue,
      mozjs_anon_sym_debugger, mozjs_anon_sym_return, mozjs_anon_sym_throw, mozjs_anon_sym_case,
      mozjs_anon_sym_yield, mozjs_anon_sym_class, mozjs_anon_sym_async, mozjs_anon_sym_function,
      mozjs_anon_sym_new, mozjs_anon_sym_PLUS, mozjs_anon_sym_DASH, mozjs_anon_sym_SLASH,
      mozjs_anon_sym_typeof, mozjs_anon_sym_void, mozjs_anon_sym_delete, mozjs_sym_identifier,
      mozjs_sym_private_property_identifier, mozjs_sym_this, mozjs_sym_super, mozjs_sym_true,
      mozjs_sym_false, mozjs_sym_null, mozjs_sym_undefined, mozjs_anon_sym_static,
      mozjs_anon_sym_get, mozjs_anon_sym_set]"

definition mozjs_small_run_693 :: "nat list" where
  "mozjs_small_run_693 =
    [4, 1161, 1, mozjs_sym__automatic_semicolon, 5, 2, mozjs_sym_html_comment, mozjs_sym_comment,
      697, 17, ts_builtin_sym_end, mozjs_anon_sym_LBRACE, mozjs_anon_sym_RBRACE,
      mozjs_anon_sym_LPAREN, mozjs_anon_sym_SEMI, mozjs_anon_sym_LBRACK, mozjs_anon_sym_LT,
      mozjs_anon_sym_DQUOTE, mozjs_anon_sym_SQUOTE, mozjs_anon_sym_BANG, mozjs_anon_sym_TILDE,
      mozjs_anon_sym_PLUS_PLUS, mozjs_anon_sym_DASH_DASH, mozjs_anon_sym_BQUOTE,
      mozjs_sym_number, mozjs_anon_sym_AT, mozjs_sym_preproc, 699, 44, mozjs_anon_sym_export,
      mozjs_anon_sym_default, mozjs_anon_sym_import, mozjs_anon_sym_with, mozjs_anon_sym_var,
      mozjs_anon_sym_let, mozjs_anon_sym_const, mozjs_anon_sym_using, mozjs_anon_sym_await,
      mozjs_anon_sym_else, mozjs_anon_sym_if, mozjs_anon_sym_switch, mozjs_anon_sym_for,
      mozjs_anon_sym_while, mozjs_anon_sym_do, mozjs_anon_sym_try, mozjs_anon_sym_break,
      mozjs_anon_sym_continue, mozjs_anon_sym_debugger, mozjs_anon_sym_return,
      mozjs_anon_sym_throw, mozjs_anon_sym_case, mozjs_anon_sym_yield, mozjs_anon_sym_class,
      mozjs_anon_sym_async, mozjs_anon_sym_function, mozjs_anon_sym_new, mozjs_anon_sym_PLUS,
      mozjs_anon_sym_DASH, mozjs_anon_sym_SLASH, mozjs_anon_sym_typeof, mozjs_anon_sym_void,
      mozjs_anon_sym_delete, mozjs_sym_identifier, mozjs_sym_private_property_identifier,
      mozjs_sym_this, mozjs_sym_super, mozjs_sym_true, mozjs_sym_false, mozjs_sym_null,
      mozjs_sym_undefined, mozjs_anon_sym_static, mozjs_anon_sym_get, mozjs_anon_sym_set]"

definition mozjs_small_run_766 :: "nat list" where
  "mozjs_small_run_766 =
    [3, 5, 2, mozjs_sym_html_comment, mozjs_sym_comment, 713, 18, mozjs_sym__automatic_semicolon,
      ts_builtin_sym_end, mozjs_anon_sym_LBRACE, mozjs_anon_sym_RBRACE, mozjs_anon_sym_LPAREN,
      mozjs_anon_sym_SEMI, mozjs_anon_sym_LBRACK, mozjs_anon_sym_LT, mozjs_anon_sym_DQUOTE,
      mozjs_anon_sym_SQUOTE, mozjs_anon_sym_BANG, mozjs_anon_sym_TILDE, mozjs_anon_sym_PLUS_PLUS,
      mozjs_anon_sym_DASH_DASH, mozjs_anon_sym_BQUOTE, mozjs_sym_number, mozjs_anon_sym_AT,
      mozjs_sym_preproc, 715, 44, mozjs_anon_sym_export, mozjs_anon_sym_default,
      mozjs_anon_sym_import, mozjs_anon_sym_with, mozjs_anon_sym_var, mozjs_anon_sym_let,
      mozjs_anon_sym_const, mozjs_anon_sym_using, mozjs_anon_sym_await, mozjs_anon_sym_else,
      mozjs_anon_sym_if, mozjs_anon_sym_switch, mozjs_anon_sym_for, mozjs_anon_sym_while,
      mozjs_anon_sym_do, mozjs_anon_sym_try, mozjs_anon_sym_break, mozjs_anon_sym_continue,
      mozjs_anon_sym_debugger, mozjs_anon_sym_return, mozjs_anon_sym_throw, mozjs_anon_sym_case,
      mozjs_anon_sym_yield, mozjs_anon_sym_class, mozjs_anon_sym_async, mozjs_anon_sym_function,
      mozjs_anon_sym_new, mozjs_anon_sym_PLUS, mozjs_anon_sym_DASH, mozjs_anon_sym_SLASH,
      mozjs_anon_sym_typeof, mozjs_anon_sym_void, mozjs_anon_sym_delete, mozjs_sym_identifier,
      mozjs_sym_private_property_identifier, mozjs_sym_this, mozjs_sym_super, mozjs_sym_true,
      mozjs_sym_false, mozjs_sym_null, mozjs_sym_undefined, mozjs_anon_sym_static,
      mozjs_anon_sym_get, mozjs_anon_sym_set]"

definition mozjs_small_run_837 :: "nat list" where
  "mozjs_small_run_837 =
    [4, 767, 1, mozjs_sym__automatic_semicolon, 5, 2, mozjs_sym_html_comment, mozjs_sym_comment,
      759, 17, ts_builtin_sym_end, mozjs_anon_sym_LBRACE, mozjs_anon_sym_RBRACE,
      mozjs_anon_sym_LPAREN, mozjs_anon_sym_SEMI, mozjs_anon_sym_LBRACK, mozjs_anon_sym_LT,
      mozjs_anon_sym_DQUOTE, mozjs_anon_sym_SQUOTE, mozjs_anon_sym_BANG, mozjs_anon_sym_TILDE,
      mozjs_anon_sym_PLUS_PLUS, mozjs_anon_sym_DASH_DASH, mozjs_anon_sym_BQUOTE,
      mozjs_sym_number, mozjs_anon_sym_AT, mozjs_sym_preproc, 761, 44, mozjs_anon_sym_export,
      mozjs_anon_sym_default, mozjs_anon_sym_import, mozjs_anon_sym_with, mozjs_anon_sym_var,
      mozjs_anon_sym_let, mozjs_anon_sym_const, mozjs_anon_sym_using, mozjs_anon_sym_await,
      mozjs_anon_sym_else, mozjs_anon_sym_if, mozjs_anon_sym_switch, mozjs_anon_sym_for,
      mozjs_anon_sym_while, mozjs_anon_sym_do, mozjs_anon_sym_try, mozjs_anon_sym_break,
      mozjs_anon_sym_continue, mozjs_anon_sym_debugger, mozjs_anon_sym_return,
      mozjs_anon_sym_throw, mozjs_anon_sym_case, mozjs_anon_sym_yield, mozjs_anon_sym_class,
      mozjs_anon_sym_async, mozjs_anon_sym_function, mozjs_anon_sym_new, mozjs_anon_sym_PLUS,
      mozjs_anon_sym_DASH, mozjs_anon_sym_SLASH, mozjs_anon_sym_typeof, mozjs_anon_sym_void,
      mozjs_anon_sym_delete, mozjs_sym_identifier, mozjs_sym_private_property_identifier,
      mozjs_sym_this, mozjs_sym_super, mozjs_sym_true, mozjs_sym_false, mozjs_sym_null,
      mozjs_sym_undefined, mozjs_anon_sym_static, mozjs_anon_sym_get, mozjs_anon_sym_set]"

definition mozjs_small_run_910 :: "nat list" where
  "mozjs_small_run_910 =
    [4, 1163, 1, mozjs_sym__automatic_semicolon, 5, 2, mozjs_sym_html_comment, mozjs_sym_comment,
      703, 17, ts_builtin_sym_end, mozjs_anon_sym_LBRACE, mozjs_anon_sym_RBRACE,
      mozjs_anon_sym_LPAREN, mozjs_anon_sym_SEMI, mozjs_anon_sym_LBRACK, mozjs_anon_sym_LT,
      mozjs_anon_sym_DQUOTE, mozjs_anon_sym_SQUOTE, mozjs_anon_sym_BANG, mozjs_anon_sym_TILDE,
      mozjs_anon_sym_PLUS_PLUS, mozjs_anon_sym_DASH_DASH, mozjs_anon_sym_BQUOTE,
      mozjs_sym_number, mozjs_anon_sym_AT, mozjs_sym_preproc, 705, 44, mozjs_anon_sym_export,
      mozjs_anon_sym_default, mozjs_anon_sym_import, mozjs_anon_sym_with, mozjs_anon_sym_var,
      mozjs_anon_sym_let, mozjs_anon_sym_const, mozjs_anon_sym_using, mozjs_anon_sym_await,
      mozjs_anon_sym_else, mozjs_anon_sym_if, mozjs_anon_sym_switch, mozjs_anon_sym_for,
      mozjs_anon_sym_while, mozjs_anon_sym_do, mozjs_anon_sym_try, mozjs_anon_sym_break,
      mozjs_anon_sym_continue, mozjs_anon_sym_debugger, mozjs_anon_sym_return,
      mozjs_anon_sym_throw, mozjs_anon_sym_case, mozjs_anon_sym_yield, mozjs_anon_sym_class,
      mozjs_anon_sym_async, mozjs_anon_sym_function, mozjs_anon_sym_new, mozjs_anon_sym_PLUS,
      mozjs_anon_sym_DASH, mozjs_anon_sym_SLASH, mozjs_anon_sym_typeof, mozjs_anon_sym_void,
      mozjs_anon_sym_delete, mozjs_sym_identifier, mozjs_sym_private_property_identifier,
      mozjs_sym_this, mozjs_sym_super, mozjs_sym_true, mozjs_sym_false, mozjs_sym_null,
      mozjs_sym_undefined, mozjs_anon_sym_static, mozjs_anon_sym_get, mozjs_anon_sym_set]"

definition mozjs_small_run_983 :: "nat list" where
  "mozjs_small_run_983 =
    [4, 777, 1, mozjs_sym__automatic_semicolon, 5, 2, mozjs_sym_html_comment, mozjs_sym_comment,
      769, 17, ts_builtin_sym_end, mozjs_anon_sym_LBRACE, mozjs_anon_sym_RBRACE,
      mozjs_anon_sym_LPAREN, mozjs_anon_sym_SEMI, mozjs_anon_sym_LBRACK, mozjs_anon_sym_LT,
      mozjs_anon_sym_DQUOTE, mozjs_anon_sym_SQUOTE, mozjs_anon_sym_BANG, mozjs_anon_sym_TILDE,
      mozjs_anon_sym_PLUS_PLUS, mozjs_anon_sym_DASH_DASH, mozjs_anon_sym_BQUOTE,
      mozjs_sym_number, mozjs_anon_sym_AT, mozjs_sym_preproc, 771, 44, mozjs_anon_sym_export,
      mozjs_anon_sym_default, mozjs_anon_sym_import, mozjs_anon_sym_with, mozjs_anon_sym_var,
      mozjs_anon_sym_let, mozjs_anon_sym_const, mozjs_anon_sym_using, mozjs_anon_sym_await,
      mozjs_anon_sym_else, mozjs_anon_sym_if, mozjs_anon_sym_switch, mozjs_anon_sym_for,
      mozjs_anon_sym_while, mozjs_anon_sym_do, mozjs_anon_sym_try, mozjs_anon_sym_break,
      mozjs_anon_sym_continue, mozjs_anon_sym_debugger, mozjs_anon_sym_return,
      mozjs_anon_sym_throw, mozjs_anon_sym_case, mozjs_anon_sym_yield, mozjs_anon_sym_class,
      mozjs_anon_sym_async, mozjs_anon_sym_function, mozjs_anon_sym_new, mozjs_anon_sym_PLUS,
      mozjs_anon_sym_DASH, mozjs_anon_sym_SLASH, mozjs_anon_sym_typeof, mozjs_anon_sym_void,
      mozjs_anon_sym_delete, mozjs_sym_identifier, mozjs_sym_private_property_identifier,
      mozjs_sym_this, mozjs_sym_super, mozjs_sym_true, mozjs_sym_false, mozjs_sym_null,
      mozjs_sym_undefined, mozjs_anon_sym_static, mozjs_anon_sym_get, mozjs_anon_sym_set]"

definition mozjs_small_run_1056 :: "nat list" where
  "mozjs_small_run_1056 =
    [4, 787, 1, mozjs_sym__automatic_semicolon, 5, 2, mozjs_sym_html_comment, mozjs_sym_comment,
      779, 17, ts_builtin_sym_end, mozjs_anon_sym_LBRACE, mozjs_anon_sym_RBRACE,
      mozjs_anon_sym_LPAREN, mozjs_anon_sym_SEMI, mozjs_anon_sym_LBRACK, mozjs_anon_sym_LT,
      mozjs_anon_sym_DQUOTE, mozjs_anon_sym_SQUOTE, mozjs_anon_sym_BANG, mozjs_anon_sym_TILDE,
      mozjs_anon_sym_PLUS_PLUS, mozjs_anon_sym_DASH_DASH, mozjs_anon_sym_BQUOTE,
      mozjs_sym_number, mozjs_anon_sym_AT, mozjs_sym_preproc, 781, 44, mozjs_anon_sym_export,
      mozjs_anon_sym_default, mozjs_anon_sym_import, mozjs_anon_sym_with, mozjs_anon_sym_var,
      mozjs_anon_sym_let, mozjs_anon_sym_const, mozjs_anon_sym_using, mozjs_anon_sym_await,
      mozjs_anon_sym_else, mozjs_anon_sym_if, mozjs_anon_sym_switch, mozjs_anon_sym_for,
      mozjs_anon_sym_while, mozjs_anon_sym_do, mozjs_anon_sym_try, mozjs_anon_sym_break,
      mozjs_anon_sym_continue, mozjs_anon_sym_debugger, mozjs_anon_sym_return,
      mozjs_anon_sym_throw, mozjs_anon_sym_case, mozjs_anon_sym_yield, mozjs_anon_sym_class,
      mozjs_anon_sym_async, mozjs_anon_sym_function, mozjs_anon_sym_new, mozjs_anon_sym_PLUS,
      mozjs_anon_sym_DASH, mozjs_anon_sym_SLASH, mozjs_anon_sym_typeof, mozjs_anon_sym_void,
      mozjs_anon_sym_delete, mozjs_sym_identifier, mozjs_sym_private_property_identifier,
      mozjs_sym_this, mozjs_sym_super, mozjs_sym_true, mozjs_sym_false, mozjs_sym_null,
      mozjs_sym_undefined, mozjs_anon_sym_static, mozjs_anon_sym_get, mozjs_anon_sym_set]"

definition mozjs_small_run_1129 :: "nat list" where
  "mozjs_small_run_1129 =
    [5, 1169, 1, mozjs_anon_sym_else, 480, 1, mozjs_sym_else_clause, 5, 2,
      mozjs_sym_html_comment, mozjs_sym_comment, 1165, 17, ts_builtin_sym_end,
      mozjs_anon_sym_LBRACE, mozjs_anon_sym_RBRACE, mozjs_anon_sym_LPAREN, mozjs_anon_sym_SEMI,
      mozjs_anon_sym_LBRACK, mozjs_anon_sym_LT, mozjs_anon_sym_DQUOTE, mozjs_anon_sym_SQUOTE,
      mozjs_anon_sym_BANG, mozjs_anon_sym_TILDE, mozjs_anon_sym_PLUS_PLUS,
      mozjs_anon_sym_DASH_DASH, mozjs_anon_sym_BQUOTE, mozjs_sym_number, mozjs_anon_sym_AT,
      mozjs_sym_preproc, 1167, 43, mozjs_anon_sym_export, mozjs_anon_sym_default,
      mozjs_anon_sym_import, mozjs_anon_sym_with, mozjs_anon_sym_var, mozjs_anon_sym_let,
      mozjs_anon_sym_const, mozjs_anon_sym_using, mozjs_anon_sym_await, mozjs_anon_sym_if,
      mozjs_anon_sym_switch, mozjs_anon_sym_for, mozjs_anon_sym_while, mozjs_anon_sym_do,
      mozjs_anon_sym_try, mozjs_anon_sym_break, mozjs_anon_sym_continue, mozjs_anon_sym_debugger,
      mozjs_anon_sym_return, mozjs_anon_sym_throw, mozjs_anon_sym_case, mozjs_anon_sym_yield,
      mozjs_anon_sym_class, mozjs_anon_sym_async, mozjs_anon_sym_function, mozjs_anon_sym_new,
      mozjs_anon_sym_PLUS, mozjs_anon_sym_DASH, mozjs_anon_sym_SLASH, mozjs_anon_sym_typeof,
      mozjs_anon_sym_void, mozjs_anon_sym_delete, mozjs_sym_identifier,
      mozjs_sym_private_property_identifier, mozjs_sym_this, mozjs_sym_super, mozjs_sym_true,
      mozjs_sym_false, mozjs_sym_null, mozjs_sym_undefined, mozjs_anon_sym_static,
      mozjs_anon_sym_get, mozjs_anon_sym_set]"

definition mozjs_small_run_1204 :: "nat list" where
  "mozjs_small_run_1204 =
    [4, 797, 1, mozjs_sym__automatic_semicolon, 5, 2, mozjs_sym_html_comment, mozjs_sym_comment,
      789, 17, ts_builtin_sym_end, mozjs_anon_sym_LBRACE, mozjs_anon_sym_RBRACE,
      mozjs_anon_sym_LPAREN, mozjs_anon_sym_SEMI, mozjs_anon_sym_LBRACK, mozjs_anon_sym_LT,
      mozjs_anon_sym_DQUOTE, mozjs_anon_sym_SQUOTE, mozjs_anon_sym_BANG, mozjs_anon_sym_TILDE,
      mozjs_anon_sym_PLUS_PLUS, mozjs_anon_sym_DASH_DASH, mozjs_anon_sym_BQUOTE,
      mozjs_sym_number, mozjs_anon_sym_AT, mozjs_sym_preproc, 791, 44, mozjs_anon_sym_export,
      mozjs_anon_sym_default, mozjs_anon_sym_import, mozjs_anon_sym_with, mozjs_anon_sym_var,
      mozjs_anon_sym_let, mozjs_anon_sym_const, mozjs_anon_sym_using, mozjs_anon_sym_await,
      mozjs_anon_sym_else, mozjs_anon_sym_if, mozjs_anon_sym_switch, mozjs_anon_sym_for,
      mozjs_anon_sym_while, mozjs_anon_sym_do, mozjs_anon_sym_try, mozjs_anon_sym_break,
      mozjs_anon_sym_continue, mozjs_anon_sym_debugger, mozjs_anon_sym_return,
      mozjs_anon_sym_throw, mozjs_anon_sym_case, mozjs_anon_sym_yield, mozjs_anon_sym_class,
      mozjs_anon_sym_async, mozjs_anon_sym_function, mozjs_anon_sym_new, mozjs_anon_sym_PLUS,
      mozjs_anon_sym_DASH, mozjs_anon_sym_SLASH, mozjs_anon_sym_typeof, mozjs_anon_sym_void,
      mozjs_anon_sym_delete, mozjs_sym_identifier, mozjs_sym_private_property_identifier,
      mozjs_sym_this, mozjs_sym_super, mozjs_sym_true, mozjs_sym_false, mozjs_sym_null,
      mozjs_sym_undefined, mozjs_anon_sym_static, mozjs_anon_sym_get, mozjs_anon_sym_set]"

definition mozjs_small_run_1277 :: "nat list" where
  "mozjs_small_run_1277 =
    [4, 807, 1, mozjs_sym__automatic_semicolon, 5, 2, mozjs_sym_html_comment, mozjs_sym_comment,
      799, 17, ts_builtin_sym_end, mozjs_anon_sym_LBRACE, mozjs_anon_sym_RBRACE,
      mozjs_anon_sym_LPAREN, mozjs_anon_sym_SEMI, mozjs_anon_sym_LBRACK, mozjs_anon_sym_LT,
      mozjs_anon_sym_DQUOTE, mozjs_anon_sym_SQUOTE, mozjs_anon_sym_BANG, mozjs_anon_sym_TILDE,
      mozjs_anon_sym_PLUS_PLUS, mozjs_anon_sym_DASH_DASH, mozjs_anon_sym_BQUOTE,
      mozjs_sym_number, mozjs_anon_sym_AT, mozjs_sym_preproc, 801, 44, mozjs_anon_sym_export,
      mozjs_anon_sym_default, mozjs_anon_sym_import, mozjs_anon_sym_with, mozjs_anon_sym_var,
      mozjs_anon_sym_let, mozjs_anon_sym_const, mozjs_anon_sym_using, mozjs_anon_sym_await,
      mozjs_anon_sym_else, mozjs_anon_sym_if, mozjs_anon_sym_switch, mozjs_anon_sym_for,
      mozjs_anon_sym_while, mozjs_anon_sym_do, mozjs_anon_sym_try, mozjs_anon_sym_break,
      mozjs_anon_sym_continue, mozjs_anon_sym_debugger, mozjs_anon_sym_return,
      mozjs_anon_sym_throw, mozjs_anon_sym_case, mozjs_anon_sym_yield, mozjs_anon_sym_class,
      mozjs_anon_sym_async, mozjs_anon_sym_function, mozjs_anon_sym_new, mozjs_anon_sym_PLUS,
      mozjs_anon_sym_DASH, mozjs_anon_sym_SLASH, mozjs_anon_sym_typeof, mozjs_anon_sym_void,
      mozjs_anon_sym_delete, mozjs_sym_identifier, mozjs_sym_private_property_identifier,
      mozjs_sym_this, mozjs_sym_super, mozjs_sym_true, mozjs_sym_false, mozjs_sym_null,
      mozjs_sym_undefined, mozjs_anon_sym_static, mozjs_anon_sym_get, mozjs_anon_sym_set]"

definition mozjs_small_run_1350 :: "nat list" where
  "mozjs_small_run_1350 =
    [4, 737, 1, mozjs_sym__automatic_semicolon, 5, 2, mozjs_sym_html_comment, mozjs_sym_comment,
      729, 17, ts_builtin_sym_end, mozjs_anon_sym_LBRACE, mozjs_anon_sym_RBRACE,
      mozjs_anon_sym_LPAREN, mozjs_anon_sym_SEMI, mozjs_anon_sym_LBRACK, mozjs_anon_sym_LT,
      mozjs_anon_sym_DQUOTE, mozjs_anon_sym_SQUOTE, mozjs_anon_sym_BANG, mozjs_anon_sym_TILDE,
      mozjs_anon_sym_PLUS_PLUS, mozjs_anon_sym_DASH_DASH, mozjs_anon_sym_BQUOTE,
      mozjs_sym_number, mozjs_anon_sym_AT, mozjs_sym_preproc, 731, 44, mozjs_anon_sym_export,
      mozjs_anon_sym_default, mozjs_anon_sym_import, mozjs_anon_sym_with, mozjs_anon_sym_var,
      mozjs_anon_sym_let, mozjs_anon_sym_const, mozjs_anon_sym_using, mozjs_anon_sym_await,
      mozjs_anon_sym_else, mozjs_anon_sym_if, mozjs_anon_sym_switch, mozjs_anon_sym_for,
      mozjs_anon_sym_while, mozjs_anon_sym_do, mozjs_anon_sym_try, mozjs_anon_sym_break,
      mozjs_anon_sym_continue, mozjs_anon_sym_debugger, mozjs_anon_sym_return,
      mozjs_anon_sym_throw, mozjs_anon_sym_case, mozjs_anon_sym_yield, mozjs_anon_sym_class,
      mozjs_anon_sym_async, mozjs_anon_sym_function, mozjs_anon_sym_new, mozjs_anon_sym_PLUS,
      mozjs_anon_sym_DASH, mozjs_anon_sym_SLASH, mozjs_anon_sym_typeof, mozjs_anon_sym_void,
      mozjs_anon_sym_delete, mozjs_sym_identifier, mozjs_sym_private_property_identifier,
      mozjs_sym_this, mozjs_sym_super, mozjs_sym_true, mozjs_sym_false, mozjs_sym_null,
      mozjs_sym_undefined, mozjs_anon_sym_static, mozjs_anon_sym_get, mozjs_anon_sym_set]"

definition mozjs_small_run_1423 :: "nat list" where
  "mozjs_small_run_1423 =
    [4, 747, 1, mozjs_sym__automatic_semicolon, 5, 2, mozjs_sym_html_comment, mozjs_sym_comment,
      739, 17, ts_builtin_sym_end, mozjs_anon_sym_LBRACE, mozjs_anon_sym_RBRACE,
      mozjs_anon_sym_LPAREN, mozjs_anon_sym_SEMI, mozjs_anon_sym_LBRACK, mozjs_anon_sym_LT,
      mozjs_anon_sym_DQUOTE, mozjs_anon_sym_SQUOTE, mozjs_anon_sym_BANG, mozjs_anon_sym_TILDE,
      mozjs_anon_sym_PLUS_PLUS, mozjs_anon_sym_DASH_DASH, mozjs_anon_sym_BQUOTE,
      mozjs_sym_number, mozjs_anon_sym_AT, mozjs_sym_preproc, 741, 44, mozjs_anon_sym_export,
      mozjs_anon_sym_default, mozjs_anon_sym_import, mozjs_anon_sym_with, mozjs_anon_sym_var,
      mozjs_anon_sym_let, mozjs_anon_sym_const, mozjs_anon_sym_using, mozjs_anon_sym_await,
      mozjs_anon_sym_else, mozjs_anon_sym_if, mozjs_anon_sym_switch, mozjs_anon_sym_for,
      mozjs_anon_sym_while, mozjs_anon_sym_do, mozjs_anon_sym_try, mozjs_anon_sym_break,
      mozjs_anon_sym_continue, mozjs_anon_sym_debugger, mozjs_anon_sym_return,
      mozjs_anon_sym_throw, mozjs_anon_sym_case, mozjs_anon_sym_yield, mozjs_anon_sym_class,
      mozjs_anon_sym_async, mozjs_anon_sym_function, mozjs_anon_sym_new, mozjs_anon_sym_PLUS,
      mozjs_anon_sym_DASH, mozjs_anon_sym_SLASH, mozjs_anon_sym_typeof, mozjs_anon_sym_void,
      mozjs_anon_sym_delete, mozjs_sym_identifier, mozjs_sym_private_property_identifier,
      mozjs_sym_this, mozjs_sym_super, mozjs_sym_true, mozjs_sym_false, mozjs_sym_null,
      mozjs_sym_undefined, mozjs_anon_sym_static, mozjs_anon_sym_get, mozjs_anon_sym_set]"

definition mozjs_small_run_1496 :: "nat list" where
  "mozjs_small_run_1496 =
    [4, 757, 1, mozjs_sym__automatic_semicolon, 5, 2, mozjs_sym_html_comment, mozjs_sym_comment,
      749, 17, ts_builtin_sym_end, mozjs_anon_sym_LBRACE, mozjs_anon_sym_RBRACE,
      mozjs_anon_sym_LPAREN, mozjs_anon_sym_SEMI, mozjs_anon_sym_LBRACK, mozjs_anon_sym_LT,
      mozjs_anon_sym_DQUOTE, mozjs_anon_sym_SQUOTE, mozjs_anon_sym_BANG, mozjs_anon_sym_TILDE,
      mozjs_anon_sym_PLUS_PLUS, mozjs_anon_sym_DASH_DASH, mozjs_anon_sym_BQUOTE,
      mozjs_sym_number, mozjs_anon_sym_AT, mozjs_sym_preproc, 751, 44, mozjs_anon_sym_export,
      mozjs_anon_sym_default, mozjs_anon_sym_import, mozjs_anon_sym_with, mozjs_anon_sym_var,
      mozjs_anon_sym_let, mozjs_anon_sym_const, mozjs_anon_sym_using, mozjs_anon_sym_await,
      mozjs_anon_sym_else, mozjs_anon_sym_if, mozjs_anon_sym_switch, mozjs_anon_sym_for,
      mozjs_anon_sym_while, mozjs_anon_sym_do, mozjs_anon_sym_try, mozjs_anon_sym_break,
      mozjs_anon_sym_continue, mozjs_anon_sym_debugger, mozjs_anon_sym_return,
      mozjs_anon_sym_throw, mozjs_anon_sym_case, mozjs_anon_sym_yield, mozjs_anon_sym_class,
      mozjs_anon_sym_async, mozjs_anon_sym_function, mozjs_anon_sym_new, mozjs_anon_sym_PLUS,
      mozjs_anon_sym_DASH, mozjs_anon_sym_SLASH, mozjs_anon_sym_typeof, mozjs_anon_sym_void,
      mozjs_anon_sym_delete, mozjs_sym_identifier, mozjs_sym_private_property_identifier,
      mozjs_sym_this, mozjs_sym_super, mozjs_sym_true, mozjs_sym_false, mozjs_sym_null,
      mozjs_sym_undefined, mozjs_anon_sym_static, mozjs_anon_sym_get, mozjs_anon_sym_set]"

definition mozjs_small_run_1569 :: "nat list" where
  "mozjs_small_run_1569 =
    [3, 5, 2, mozjs_sym_html_comment, mozjs_sym_comment, 1171, 17, ts_builtin_sym_end,
      mozjs_anon_sym_LBRACE, mozjs_anon_sym_RBRACE, mozjs_anon_sym_LPAREN, mozjs_anon_sym_SEMI,
      mozjs_anon_sym_LBRACK, mozjs_anon_sym_LT, mozjs_anon_sym_DQUOTE, mozjs_anon_sym_SQUOTE,
      mozjs_anon_sym_BANG, mozjs_anon_sym_TILDE, mozjs_anon_sym_PLUS_PLUS,
      mozjs_anon_sym_DASH_DASH, mozjs_anon_sym_BQUOTE, mozjs_sym_number, mozjs_anon_sym_AT,
      mozjs_sym_preproc, 1173, 45, mozjs_anon_sym_export, mozjs_anon_sym_default,
      mozjs_anon_sym_import, mozjs_anon_sym_with, mozjs_anon_sym_var, mozjs_anon_sym_let,
      mozjs_anon_sym_const, mozjs_anon_sym_using, mozjs_anon_sym_await, mozjs_anon_sym_else,
      mozjs_anon_sym_if, mozjs_anon_sym_switch, mozjs_anon_sym_for, mozjs_anon_sym_while,
      mozjs_anon_sym_do, mozjs_anon_sym_try, mozjs_anon_sym_break, mozjs_anon_sym_continue,
      mozjs_anon_sym_debugger, mozjs_anon_sym_return, mozjs_anon_sym_throw, mozjs_anon_sym_case,
      mozjs_anon_sym_finally, mozjs_anon_sym_yield, mozjs_anon_sym_class, mozjs_anon_sym_async,
      mozjs_anon_sym_function, mozjs_anon_sym_new, mozjs_anon_sym_PLUS, mozjs_anon_sym_DASH,
      mozjs_anon_sym_SLASH, mozjs_anon_sym_typeof, mozjs_anon_sym_void, mozjs_anon_sym_delete,
      mozjs_sym_identifier, mozjs_sym_private_property_identifier, mozjs_sym_this,
      mozjs_sym_super, mozjs_sym_true, mozjs_sym_false, mozjs_sym_null, mozjs_sym_undefined,
      mozjs_anon_sym_static, mozjs_anon_sym_get, mozjs_anon_sym_set]"

definition mozjs_small_run_1640 :: "nat list" where
  "mozjs_small_run_1640 =
    [3, 5, 2, mozjs_sym_html_comment, mozjs_sym_comment, 1175, 17, ts_builtin_sym_end,
      mozjs_anon_sym_LBRACE, mozjs_anon_sym_RBRACE, mozjs_anon_sym_LPAREN, mozjs_anon_sym_SEMI,
      mozjs_anon_sym_LBRACK, mozjs_anon_sym_LT, mozjs_anon_sym_DQUOTE, mozjs_anon_sym_SQUOTE,
      mozjs_anon_sym_BANG, mozjs_anon_sym_TILDE, mozjs_anon_sym_PLUS_PLUS,
      mozjs_anon_sym_DASH_DASH, mozjs_anon_sym_BQUOTE, mozjs_sym_number, mozjs_anon_sym_AT,
      mozjs_sym_preproc, 1177, 44, mozjs_anon_sym_export, mozjs_anon_sym_default,
      mozjs_anon_sym_import, mozjs_anon_sym_with, mozjs_anon_sym_var, mozjs_anon_sym_let,
      mozjs_anon_sym_const, mozjs_anon_sym_using, mozjs_anon_sym_await, mozjs_anon_sym_else,
      mozjs_anon_sym_if, mozjs_anon_sym_switch, mozjs_anon_sym_for, mozjs_anon_sym_while,
      mozjs_anon_sym_do, mozjs_anon_sym_try, mozjs_anon_sym_break, mozjs_anon_sym_continue,
      mozjs_anon_sym_debugger, mozjs_anon_sym_return, mozjs_anon_sym_throw, mozjs_anon_sym_case,
      mozjs_anon_sym_yield, mozjs_anon_sym_class, mozjs_anon_sym_async, mozjs_anon_sym_function,
      mozjs_anon_sym_new, mozjs_anon_sym_PLUS, mozjs_anon_sym_DASH, mozjs_anon_sym_SLASH,
      mozjs_anon_sym_typeof, mozjs_anon_sym_void, mozjs_anon_sym_delete, mozjs_sym_identifier,
      mozjs_sym_private_property_identifier, mozjs_sym_this, mozjs_sym_super, mozjs_sym_true,
      mozjs_sym_false, mozjs_sym_null, mozjs_sym_undefined, mozjs_anon_sym_static,
      mozjs_anon_sym_get, mozjs_anon_sym_set]"

definition mozjs_small_run_1710 :: "nat list" where
  "mozjs_small_run_1710 =
    [3, 5, 2, mozjs_sym_html_comment, mozjs_sym_comment, 1179, 17, ts_builtin_sym_end,
      mozjs_anon_sym_LBRACE, mozjs_anon_sym_RBRACE, mozjs_anon_sym_LPAREN, mozjs_anon_sym_SEMI,
      mozjs_anon_sym_LBRACK, mozjs_anon_sym_LT, mozjs_anon_sym_DQUOTE, mozjs_anon_sym_SQUOTE,
      mozjs_anon_sym_BANG, mozjs_anon_sym_TILDE, mozjs_anon_sym_PLUS_PLUS,
      mozjs_anon_sym_DASH_DASH, mozjs_anon_sym_BQUOTE, mozjs_sym_number, mozjs_anon_sym_AT,
      mozjs_sym_preproc, 1181, 44, mozjs_anon_sym_export, mozjs_anon_sym_default,
      mozjs_anon_sym_import, mozjs_anon_sym_with, mozjs_anon_sym_var, mozjs_anon_sym_let,
      mozjs_anon_sym_const, mozjs_anon_sym_using, mozjs_anon_sym_await, mozjs_anon_sym_else,
      mozjs_anon_sym_if, mozjs_anon_sym_switch, mozjs_anon_sym_for, mozjs_anon_sym_while,
      mozjs_anon_sym_do, mozjs_anon_sym_try, mozjs_anon_sym_break, mozjs_anon_sym_continue,
      mozjs_anon_sym_debugger, mozjs_anon_sym_return, mozjs_anon_sym_throw, mozjs_anon_sym_case,
      mozjs_anon_sym_yield, mozjs_anon_sym_class, mozjs_anon_sym_async, mozjs_anon_sym_function,
      mozjs_anon_sym_new, mozjs_anon_sym_PLUS, mozjs_anon_sym_DASH, mozjs_anon_sym_SLASH,
      mozjs_anon_sym_typeof, mozjs_anon_sym_void, mozjs_anon_sym_delete, mozjs_sym_identifier,
      mozjs_sym_private_property_identifier, mozjs_sym_this, mozjs_sym_super, mozjs_sym_true,
      mozjs_sym_false, mozjs_sym_null, mozjs_sym_undefined, mozjs_anon_sym_static,
      mozjs_anon_sym_get, mozjs_anon_sym_set]"

definition mozjs_small_run_1780 :: "nat list" where
  "mozjs_small_run_1780 =
    [3, 5, 2, mozjs_sym_html_comment, mozjs_sym_comment, 1183, 17, ts_builtin_sym_end,
      mozjs_anon_sym_LBRACE, mozjs_anon_sym_RBRACE, mozjs_anon_sym_LPAREN, mozjs_anon_sym_SEMI,
      mozjs_anon_sym_LBRACK, mozjs_anon_sym_LT, mozjs_anon_sym_DQUOTE, mozjs_anon_sym_SQUOTE,
      mozjs_anon_sym_BANG, mozjs_anon_sym_TILDE, mozjs_anon_sym_PLUS_PLUS,
      mozjs_anon_sym_DASH_DASH, mozjs_anon_sym_BQUOTE, mozjs_sym_number, mozjs_anon_sym_AT,
      mozjs_sym_preproc, 1185, 44, mozjs_anon_sym_export, mozjs_anon_sym_default,
      mozjs_anon_sym_import, mozjs_anon_sym_with, mozjs_anon_sym_var, mozjs_anon_sym_let,
      mozjs_anon_sym_const, mozjs_anon_sym_using, mozjs_anon_sym_await, mozjs_anon_sym_else,
      mozjs_anon_sym_if, mozjs_anon_sym_switch, mozjs_anon_sym_for, mozjs_anon_sym_while,
      mozjs_anon_sym_do, mozjs_anon_sym_try, mozjs_anon_sym_break, mozjs_anon_sym_continue,
      mozjs_anon_sym_debugger, mozjs_anon_sym_return, mozjs_anon_sym_throw, mozjs_anon_sym_case,
      mozjs_anon_sym_yield, mozjs_anon_sym_class, mozjs_anon_sym_async, mozjs_anon_sym_function,
      mozjs_anon_sym_new, mozjs_anon_sym_PLUS, mozjs_anon_sym_DASH, mozjs_anon_sym_SLASH,
      mozjs_anon_sym_typeof, mozjs_anon_sym_void, mozjs_anon_sym_delete, mozjs_sym_identifier,
      mozjs_sym_private_property_identifier, mozjs_sym_this, mozjs_sym_super, mozjs_sym_true,
      mozjs_sym_false, mozjs_sym_null, mozjs_sym_undefined, mozjs_anon_sym_static,
      mozjs_anon_sym_get, mozjs_anon_sym_set]"

definition mozjs_small_run_1850 :: "nat list" where
  "mozjs_small_run_1850 =
    [3, 5, 2, mozjs_sym_html_comment, mozjs_sym_comment, 1187, 17, ts_builtin_sym_end,
      mozjs_anon_sym_LBRACE, mozjs_anon_sym_RBRACE, mozjs_anon_sym_LPAREN, mozjs_anon_sym_SEMI,
      mozjs_anon_sym_LBRACK, mozjs_anon_sym_LT, mozjs_anon_sym_DQUOTE, mozjs_anon_sym_SQUOTE,
      mozjs_anon_sym_BANG, mozjs_anon_sym_TILDE, mozjs_anon_sym_PLUS_PLUS,
      mozjs_anon_sym_DASH_DASH, mozjs_anon_sym_BQUOTE, mozjs_sym_number, mozjs_anon_sym_AT,
      mozjs_sym_preproc, 1189, 44, mozjs_anon_sym_export, mozjs_anon_sym_default,
      mozjs_anon_sym_import, mozjs_anon_sym_with, mozjs_anon_sym_var, mozjs_anon_sym_let,
      mozjs_anon_sym_const, mozjs_anon_sym_using, mozjs_anon_sym_await, mozjs_anon_sym_else,
      mozjs_anon_sym_if, mozjs_anon_sym_switch, mozjs_anon_sym_for, mozjs_anon_sym_while,
      mozjs_anon_sym_do, mozjs_anon_sym_try, mozjs_anon_sym_break, mozjs_anon_sym_continue,
      mozjs_anon_sym_debugger, mozjs_anon_sym_return, mozjs_anon_sym_throw, mozjs_anon_sym_case,
      mozjs_anon_sym_yield, mozjs_anon_sym_class, mozjs_anon_sym_async, mozjs_anon_sym_function,
      mozjs_anon_sym_new, mozjs_anon_sym_PLUS, mozjs_anon_sym_DASH, mozjs_anon_sym_SLASH,
      mozjs_anon_sym_typeof, mozjs_anon_sym_void, mozjs_anon_sym_delete, mozjs_sym_identifier,
      mozjs_sym_private_property_identifier, mozjs_sym_this, mozjs_sym_super, mozjs_sym_true,
      mozjs_sym_false, mozjs_sym_null, mozjs_sym_undefined, mozjs_anon_sym_static,
      mozjs_anon_sym_get, mozjs_anon_sym_set]"

definition mozjs_small_run_1920 :: "nat list" where
  "mozjs_small_run_1920 =
    [3, 5, 2, mozjs_sym_html_comment, mozjs_sym_comment, 1191, 17, ts_builtin_sym_end,
      mozjs_anon_sym_LBRACE, mozjs_anon_sym_RBRACE, mozjs_anon_sym_LPAREN, mozjs_anon_sym_SEMI,
      mozjs_anon_sym_LBRACK, mozjs_anon_sym_LT, mozjs_anon_sym_DQUOTE, mozjs_anon_sym_SQUOTE,
      mozjs_anon_sym_BANG, mozjs_anon_sym_TILDE, mozjs_anon_sym_PLUS_PLUS,
      mozjs_anon_sym_DASH_DASH, mozjs_anon_sym_BQUOTE, mozjs_sym_number, mozjs_anon_sym_AT,
      mozjs_sym_preproc, 1193, 44, mozjs_anon_sym_export, mozjs_anon_sym_default,
      mozjs_anon_sym_import, mozjs_anon_sym_with, mozjs_anon_sym_var, mozjs_anon_sym_let,
      mozjs_anon_sym_const, mozjs_anon_sym_using, mozjs_anon_sym_await, mozjs_anon_sym_else,
      mozjs_anon_sym_if, mozjs_anon_sym_switch, mozjs_anon_sym_for, mozjs_anon_sym_while,
      mozjs_anon_sym_do, mozjs_anon_sym_try, mozjs_anon_sym_break, mozjs_anon_sym_continue,
      mozjs_anon_sym_debugger, mozjs_anon_sym_return, mozjs_anon_sym_throw, mozjs_anon_sym_case,
      mozjs_anon_sym_yield, mozjs_anon_sym_class, mozjs_anon_sym_async, mozjs_anon_sym_function,
      mozjs_anon_sym_new, mozjs_anon_sym_PLUS, mozjs_anon_sym_DASH, mozjs_anon_sym_SLASH,
      mozjs_anon_sym_typeof, mozjs_anon_sym_void, mozjs_anon_sym_delete, mozjs_sym_identifier,
      mozjs_sym_private_property_identifier, mozjs_sym_this, mozjs_sym_super, mozjs_sym_true,
      mozjs_sym_false, mozjs_sym_null, mozjs_sym_undefined, mozjs_anon_sym_static,
      mozjs_anon_sym_get, mozjs_anon_sym_set]"

definition mozjs_small_run_1990 :: "nat list" where
  "mozjs_small_run_1990 =
    [3, 5, 2, mozjs_sym_html_comment, mozjs_sym_comment, 1195, 17, ts_builtin_sym_end,
      mozjs_anon_sym_LBRACE, mozjs_anon_sym_RBRACE, mozjs_anon_sym_LPAREN, mozjs_anon_sym_SEMI,
      mozjs_anon_sym_LBRACK, mozjs_anon_sym_LT, mozjs_anon_sym_DQUOTE, mozjs_anon_sym_SQUOTE,
      mozjs_anon_sym_BANG, mozjs_anon_sym_TILDE, mozjs_anon_sym_PLUS_PLUS,
      mozjs_anon_sym_DASH_DASH, mozjs_anon_sym_BQUOTE, mozjs_sym_number, mozjs_anon_sym_AT,
      mozjs_sym_preproc, 1197, 44, mozjs_anon_sym_export, mozjs_anon_sym_default,
      mozjs_anon_sym_import, mozjs_anon_sym_with, mozjs_anon_sym_var, mozjs_anon_sym_let,
      mozjs_anon_sym_const, mozjs_anon_sym_using, mozjs_anon_sym_await, mozjs_anon_sym_else,
      mozjs_anon_sym_if, mozjs_anon_sym_switch, mozjs_anon_sym_for, mozjs_anon_sym_while,
      mozjs_anon_sym_do, mozjs_anon_sym_try, mozjs_anon_sym_break, mozjs_anon_sym_continue,
      mozjs_anon_sym_debugger, mozjs_anon_sym_return, mozjs_anon_sym_throw, mozjs_anon_sym_case,
      mozjs_anon_sym_yield, mozjs_anon_sym_class, mozjs_anon_sym_async, mozjs_anon_sym_function,
      mozjs_anon_sym_new, mozjs_anon_sym_PLUS, mozjs_anon_sym_DASH, mozjs_anon_sym_SLASH,
      mozjs_anon_sym_typeof, mozjs_anon_sym_void, mozjs_anon_sym_delete, mozjs_sym_identifier,
      mozjs_sym_private_property_identifier, mozjs_sym_this, mozjs_sym_super, mozjs_sym_true,
      mozjs_sym_false, mozjs_sym_null, mozjs_sym_undefined, mozjs_anon_sym_static,
      mozjs_anon_sym_get, mozjs_anon_sym_set]"

definition mozjs_small_run_2060 :: "nat list" where
  "mozjs_small_run_2060 =
    [3, 5, 2, mozjs_sym_html_comment, mozjs_sym_comment, 1199, 17, ts_builtin_sym_end,
      mozjs_anon_sym_LBRACE, mozjs_anon_sym_RBRACE, mozjs_anon_sym_LPAREN, mozjs_anon_sym_SEMI,
      mozjs_anon_sym_LBRACK, mozjs_anon_sym_LT, mozjs_anon_sym_DQUOTE, mozjs_anon_sym_SQUOTE,
      mozjs_anon_sym_BANG, mozjs_anon_sym_TILDE, mozjs_anon_sym_PLUS_PLUS,
      mozjs_anon_sym_DASH_DASH, mozjs_anon_sym_BQUOTE, mozjs_sym_number, mozjs_anon_sym_AT,
      mozjs_sym_preproc, 1201, 44, mozjs_anon_sym_export, mozjs_anon_sym_default,
      mozjs_anon_sym_import, mozjs_anon_sym_with, mozjs_anon_sym_var, mozjs_anon_sym_let,
      mozjs_anon_sym_const, mozjs_anon_sym_using, mozjs_anon_sym_await, mozjs_anon_sym_else,
      mozjs_anon_sym_if, mozjs_anon_sym_switch, mozjs_anon_sym_for, mozjs_anon_sym_while,
      mozjs_anon_sym_do, mozjs_anon_sym_try, mozjs_anon_sym_break, mozjs_anon_sym_continue,
      mozjs_anon_sym_debugger, mozjs_anon_sym_return, mozjs_anon_sym_throw, mozjs_anon_sym_case,
      mozjs_anon_sym_yield, mozjs_anon_sym_class, mozjs_anon_sym_async, mozjs_anon_sym_function,
      mozjs_anon_sym_new, mozjs_anon_sym_PLUS, mozjs_anon_sym_DASH, mozjs_anon_sym_SLASH,
      mozjs_anon_sym_typeof, mozjs_anon_sym_void, mozjs_anon_sym_delete, mozjs_sym_identifier,
      mozjs_sym_private_property_identifier, mozjs_sym_this, mozjs_sym_super, mozjs_sym_true,
      mozjs_sym_false, mozjs_sym_null, mozjs_sym_undefined, mozjs_anon_sym_static,
      mozjs_anon_sym_get, mozjs_anon_sym_set]"

definition mozjs_small_run_2130 :: "nat list" where
  "mozjs_small_run_2130 =
    [3, 5, 2, mozjs_sym_html_comment, mozjs_sym_comment, 1203, 17, ts_builtin_sym_end,
      mozjs_anon_sym_LBRACE, mozjs_anon_sym_RBRACE, mozjs_anon_sym_LPAREN, mozjs_anon_sym_SEMI,
      mozjs_anon_sym_LBRACK, mozjs_anon_sym_LT, mozjs_anon_sym_DQUOTE, mozjs_anon_sym_SQUOTE,
      mozjs_anon_sym_BANG, mozjs_anon_sym_TILDE, mozjs_anon_sym_PLUS_PLUS,
      mozjs_anon_sym_DASH_DASH, mozjs_anon_sym_BQUOTE, mozjs_sym_number, mozjs_anon_sym_AT,
      mozjs_sym_preproc, 1205, 44, mozjs_anon_sym_export, mozjs_anon_sym_default,
      mozjs_anon_sym_import, mozjs_anon_sym_with, mozjs_anon_sym_var, mozjs_anon_sym_let,
      mozjs_anon_sym_const, mozjs_anon_sym_using, mozjs_anon_sym_await, mozjs_anon_sym_else,
      mozjs_anon_sym_if, mozjs_anon_sym_switch, mozjs_anon_sym_for, mozjs_anon_sym_while,
      mozjs_anon_sym_do, mozjs_anon_sym_try, mozjs_anon_sym_break, mozjs_anon_sym_continue,
      mozjs_anon_sym_debugger, mozjs_anon_sym_return, mozjs_anon_sym_throw, mozjs_anon_sym_case,
      mozjs_anon_sym_yield, mozjs_anon_sym_class, mozjs_anon_sym_async, mozjs_anon_sym_function,
      mozjs_anon_sym_new, mozjs_anon_sym_PLUS, mozjs_anon_sym_DASH, mozjs_anon_sym_SLASH,
      mozjs_anon_sym_typeof, mozjs_anon_sym_void, mozjs_anon_sym_delete, mozjs_sym_identifier,
      mozjs_sym_private_property_identifier, mozjs_sym_this, mozjs_sym_super, mozjs_sym_true,
      mozjs_sym_false, mozjs_sym_null, mozjs_sym_undefined, mozjs_anon_sym_static,
      mozjs_anon_sym_get, mozjs_anon_sym_set]"

definition mozjs_small_run_2200 :: "nat list" where
  "mozjs_small_run_2200 =
    [3, 5, 2, mozjs_sym_html_comment, mozjs_sym_comment, 1207, 17, ts_builtin_sym_end,
      mozjs_anon_sym_LBRACE, mozjs_anon_sym_RBRACE, mozjs_anon_sym_LPAREN, mozjs_anon_sym_SEMI,
      mozjs_anon_sym_LBRACK, mozjs_anon_sym_LT, mozjs_anon_sym_DQUOTE, mozjs_anon_sym_SQUOTE,
      mozjs_anon_sym_BANG, mozjs_anon_sym_TILDE, mozjs_anon_sym_PLUS_PLUS,
      mozjs_anon_sym_DASH_DASH, mozjs_anon_sym_BQUOTE, mozjs_sym_number, mozjs_anon_sym_AT,
      mozjs_sym_preproc, 1209, 44, mozjs_anon_sym_export, mozjs_anon_sym_default,
      mozjs_anon_sym_import, mozjs_anon_sym_with, mozjs_anon_sym_var, mozjs_anon_sym_let,
      mozjs_anon_sym_const, mozjs_anon_sym_using, mozjs_anon_sym_await, mozjs_anon_sym_else,
      mozjs_anon_sym_if, mozjs_anon_sym_switch, mozjs_anon_sym_for, mozjs_anon_sym_while,
      mozjs_anon_sym_do, mozjs_anon_sym_try, mozjs_anon_sym_break, mozjs_anon_sym_continue,
      mozjs_anon_sym_debugger, mozjs_anon_sym_return, mozjs_anon_sym_throw, mozjs_anon_sym_case,
      mozjs_anon_sym_yield, mozjs_anon_sym_class, mozjs_anon_sym_async, mozjs_anon_sym_function,
      mozjs_anon_sym_new, mozjs_anon_sym_PLUS, mozjs_anon_sym_DASH, mozjs_anon_sym_SLASH,
      mozjs_anon_sym_typeof, mozjs_anon_sym_void, mozjs_anon_sym_delete, mozjs_sym_identifier,
      mozjs_sym_private_property_identifier, mozjs_sym_this, mozjs_sym_super, mozjs_sym_true,
      mozjs_sym_false, mozjs_sym_null, mozjs_sym_undefined, mozjs_anon_sym_static,
      mozjs_anon_sym_get, mozjs_anon_sym_set]"

definition mozjs_small_run_2270 :: "nat list" where
  "mozjs_small_run_2270 =
    [3, 5, 2, mozjs_sym_html_comment, mozjs_sym_comment, 1211, 17, ts_builtin_sym_end,
      mozjs_anon_sym_LBRACE, mozjs_anon_sym_RBRACE, mozjs_anon_sym_LPAREN, mozjs_anon_sym_SEMI,
      mozjs_anon_sym_LBRACK, mozjs_anon_sym_LT, mozjs_anon_sym_DQUOTE, mozjs_anon_sym_SQUOTE,
      mozjs_anon_sym_BANG, mozjs_anon_sym_TILDE, mozjs_anon_sym_PLUS_PLUS,
      mozjs_anon_sym_DASH_DASH, mozjs_anon_sym_BQUOTE, mozjs_sym_number, mozjs_anon_sym_AT,
      mozjs_sym_preproc, 1213, 44, mozjs_anon_sym_export, mozjs_anon_sym_default,
      mozjs_anon_sym_import, mozjs_anon_sym_with, mozjs_anon_sym_var, mozjs_anon_sym_let,
      mozjs_anon_sym_const, mozjs_anon_sym_using, mozjs_anon_sym_await, mozjs_anon_sym_else,
      mozjs_anon_sym_if, mozjs_anon_sym_switch, mozjs_anon_sym_for, mozjs_anon_sym_while,
      mozjs_anon_sym_do, mozjs_anon_sym_try, mozjs_anon_sym_break, mozjs_anon_sym_continue,
      mozjs_anon_sym_debugger, mozjs_anon_sym_return, mozjs_anon_sym_throw, mozjs_anon_sym_case,
      mozjs_anon_sym_yield, mozjs_anon_sym_class, mozjs_anon_sym_async, mozjs_anon_sym_function,
      mozjs_anon_sym_new, mozjs_anon_sym_PLUS, mozjs_anon_sym_DASH, mozjs_anon_sym_SLASH,
      mozjs_anon_sym_typeof, mozjs_anon_sym_void, mozjs_anon_sym_delete, mozjs_sym_identifier,
      mozjs_sym_private_property_identifier, mozjs_sym_this, mozjs_sym_super, mozjs_sym_true,
      mozjs_sym_false, mozjs_sym_null, mozjs_sym_undefined, mozjs_anon_sym_static,
      mozjs_anon_sym_get, mozjs_anon_sym_set]"

definition mozjs_small_run_2340 :: "nat list" where
  "mozjs_small_run_2340 =
    [3, 5, 2, mozjs_sym_html_comment, mozjs_sym_comment, 1215, 17, ts_builtin_sym_end,
      mozjs_anon_sym_LBRACE, mozjs_anon_sym_RBRACE, mozjs_anon_sym_LPAREN, mozjs_anon_sym_SEMI,
      mozjs_anon_sym_LBRACK, mozjs_anon_sym_LT, mozjs_anon_sym_DQUOTE, mozjs_anon_sym_SQUOTE,
      mozjs_anon_sym_BANG, mozjs_anon_sym_TILDE, mozjs_anon_sym_PLUS_PLUS,
      mozjs_anon_sym_DASH_DASH, mozjs_anon_sym_BQUOTE, mozjs_sym_number, mozjs_anon_sym_AT,
      mozjs_sym_preproc, 1217, 44, mozjs_anon_sym_export, mozjs_anon_sym_default,
      mozjs_anon_sym_import, mozjs_anon_sym_with, mozjs_anon_sym_var, mozjs_anon_sym_let,
      mozjs_anon_sym_const, mozjs_anon_sym_using, mozjs_anon_sym_await, mozjs_anon_sym_else,
      mozjs_anon_sym_if, mozjs_anon_sym_switch, mozjs_anon_sym_for, mozjs_anon_sym_while,
      mozjs_anon_sym_do, mozjs_anon_sym_try, mozjs_anon_sym_break, mozjs_anon_sym_continue,
      mozjs_anon_sym_debugger, mozjs_anon_sym_return, mozjs_anon_sym_throw, mozjs_anon_sym_case,
      mozjs_anon_sym_yield, mozjs_anon_sym_class, mozjs_anon_sym_async, mozjs_anon_sym_function,
      mozjs_anon_sym_new, mozjs_anon_sym_PLUS, mozjs_anon_sym_DASH, mozjs_anon_sym_SLASH,
      mozjs_anon_sym_typeof, mozjs_anon_sym_void, mozjs_anon_sym_delete, mozjs_sym_identifier,
      mozjs_sym_private_property_identifier, mozjs_sym_this, mozjs_sym_super, mozjs_sym_true,
      mozjs_sym_false, mozjs_sym_null, mozjs_sym_undefined, mozjs_anon_sym_static,
      mozjs_anon_sym_get, mozjs_anon_sym_set]"

definition mozjs_small_run_2410 :: "nat list" where
  "mozjs_small_run_2410 =
    [3, 5, 2, mozjs_sym_html_comment, mozjs_sym_comment, 1183, 17, ts_builtin_sym_end,
      mozjs_anon_sym_LBRACE, mozjs_anon_sym_RBRACE, mozjs_anon_sym_LPAREN, mozjs_anon_sym_SEMI,
      mozjs_anon_sym_LBRACK, mozjs_anon_sym_LT, mozjs_anon_sym_DQUOTE, mozjs_anon_sym_SQUOTE,
      mozjs_anon_sym_BANG, mozjs_anon_sym_TILDE, mozjs_anon_sym_PLUS_PLUS,
      mozjs_anon_sym_DASH_DASH, mozjs_anon_sym_BQUOTE, mozjs_sym_number, mozjs_anon_sym_AT,
      mozjs_sym_preproc, 1185, 44, mozjs_anon_sym_export, mozjs_anon_sym_default,
      mozjs_anon_sym_import, mozjs_anon_sym_with, mozjs_anon_sym_var, mozjs_anon_sym_let,
      mozjs_anon_sym_const, mozjs_anon_sym_using, mozjs_anon_sym_await, mozjs_anon_sym_else,
      mozjs_anon_sym_if, mozjs_anon_sym_switch, mozjs_anon_sym_for, mozjs_anon_sym_while,
      mozjs_anon_sym_do, mozjs_anon_sym_try, mozjs_anon_sym_break, mozjs_anon_sym_continue,
      mozjs_anon_sym_debugger, mozjs_anon_sym_return, mozjs_anon_sym_throw, mozjs_anon_sym_case,
      mozjs_anon_sym_yield, mozjs_anon_sym_class, mozjs_anon_sym_async, mozjs_anon_sym_function,
      mozjs_anon_sym_new, mozjs_anon_sym_PLUS, mozjs_anon_sym_DASH, mozjs_anon_sym_SLASH,
      mozjs_anon_sym_typeof, mozjs_anon_sym_void, mozjs_anon_sym_delete, mozjs_sym_identifier,
      mozjs_sym_private_property_identifier, mozjs_sym_this, mozjs_sym_super, mozjs_sym_true,
      mozjs_sym_false, mozjs_sym_null, mozjs_sym_undefined, mozjs_anon_sym_static,
      mozjs_anon_sym_get, mozjs_anon_sym_set]"

definition mozjs_small_run_2480 :: "nat list" where
  "mozjs_small_run_2480 =
    [3, 5, 2, mozjs_sym_html_comment, mozjs_sym_comment, 1219, 17, ts_builtin_sym_end,
      mozjs_anon_sym_LBRACE, mozjs_anon_sym_RBRACE, mozjs_anon_sym_LPAREN, mozjs_anon_sym_SEMI,
      mozjs_anon_sym_LBRACK, mozjs_anon_sym_LT, mozjs_anon_sym_DQUOTE, mozjs_anon_sym_SQUOTE,
      mozjs_anon_sym_BANG, mozjs_anon_sym_TILDE, mozjs_anon_sym_PLUS_PLUS,
      mozjs_anon_sym_DASH_DASH, mozjs_anon_sym_BQUOTE, mozjs_sym_number, mozjs_anon_sym_AT,
      mozjs_sym_preproc, 1221, 44, mozjs_anon_sym_export, mozjs_anon_sym_default,
      mozjs_anon_sym_import, mozjs_anon_sym_with, mozjs_anon_sym_var, mozjs_anon_sym_let,
      mozjs_anon_sym_const, mozjs_anon_sym_using, mozjs_anon_sym_await, mozjs_anon_sym_else,
      mozjs_anon_sym_if, mozjs_anon_sym_switch, mozjs_anon_sym_for, mozjs_anon_sym_while,
      mozjs_anon_sym_do, mozjs_anon_sym_try, mozjs_anon_sym_break, mozjs_anon_sym_continue,
      mozjs_anon_sym_debugger, mozjs_anon_sym_return, mozjs_anon_sym_throw, mozjs_anon_sym_case,
      mozjs_anon_sym_yield, mozjs_anon_sym_class, mozjs_anon_sym_async, mozjs_anon_sym_function,
      mozjs_anon_sym_new, mozjs_anon_sym_PLUS, mozjs_anon_sym_DASH, mozjs_anon_sym_SLASH,
      mozjs_anon_sym_typeof, mozjs_anon_sym_void, mozjs_anon_sym_delete, mozjs_sym_identifier,
      mozjs_sym_private_property_identifier, mozjs_sym_this, mozjs_sym_super, mozjs_sym_true,
      mozjs_sym_false, mozjs_sym_null, mozjs_sym_undefined, mozjs_anon_sym_static,
      mozjs_anon_sym_get, mozjs_anon_sym_set]"

definition mozjs_small_run_2550 :: "nat list" where
  "mozjs_small_run_2550 =
    [3, 5, 2, mozjs_sym_html_comment, mozjs_sym_comment, 1223, 17, ts_builtin_sym_end,
      mozjs_anon_sym_LBRACE, mozjs_anon_sym_RBRACE, mozjs_anon_sym_LPAREN, mozjs_anon_sym_SEMI,
      mozjs_anon_sym_LBRACK, mozjs_anon_sym_LT, mozjs_anon_sym_DQUOTE, mozjs_anon_sym_SQUOTE,
      mozjs_anon_sym_BANG, mozjs_anon_sym_TILDE, mozjs_anon_sym_PLUS_PLUS,
      mozjs_anon_sym_DASH_DASH, mozjs_anon_sym_BQUOTE, mozjs_sym_number, mozjs_anon_sym_AT,
      mozjs_sym_preproc, 1225, 44, mozjs_anon_sym_export, mozjs_anon_sym_default,
      mozjs_anon_sym_import, mozjs_anon_sym_with, mozjs_anon_sym_var, mozjs_anon_sym_let,
      mozjs_anon_sym_const, mozjs_anon_sym_using, mozjs_anon_sym_await, mozjs_anon_sym_else,
      mozjs_anon_sym_if, mozjs_anon_sym_switch, mozjs_anon_sym_for, mozjs_anon_sym_while,
      mozjs_anon_sym_do, mozjs_anon_sym_try, mozjs_anon_sym_break, mozjs_anon_sym_continue,
      mozjs_anon_sym_debugger, mozjs_anon_sym_return, mozjs_anon_sym_throw, mozjs_anon_sym_case,
      mozjs_anon_sym_yield, mozjs_anon_sym_class, mozjs_anon_sym_async, mozjs_anon_sym_function,
      mozjs_anon_sym_new, mozjs_anon_sym_PLUS, mozjs_anon_sym_DASH, mozjs_anon_sym_SLASH,
      mozjs_anon_sym_typeof, mozjs_anon_sym_void, mozjs_anon_sym_delete, mozjs_sym_identifier,
      mozjs_sym_private_property_identifier, mozjs_sym_this, mozjs_sym_super, mozjs_sym_true,
      mozjs_sym_false, mozjs_sym_null, mozjs_sym_undefined, mozjs_anon_sym_static,
      mozjs_anon_sym_get, mozjs_anon_sym_set]"

definition mozjs_small_run_2620 :: "nat list" where
  "mozjs_small_run_2620 =
    [3, 5, 2, mozjs_sym_html_comment, mozjs_sym_comment, 1227, 17, ts_builtin_sym_end,
      mozjs_anon_sym_LBRACE, mozjs_anon_sym_RBRACE, mozjs_anon_sym_LPAREN, mozjs_anon_sym_SEMI,
      mozjs_anon_sym_LBRACK, mozjs_anon_sym_LT, mozjs_anon_sym_DQUOTE, mozjs_anon_sym_SQUOTE,
      mozjs_anon_sym_BANG, mozjs_anon_sym_TILDE, mozjs_anon_sym_PLUS_PLUS,
      mozjs_anon_sym_DASH_DASH, mozjs_anon_sym_BQUOTE, mozjs_sym_number, mozjs_anon_sym_AT,
      mozjs_sym_preproc, 1229, 44, mozjs_anon_sym_export, mozjs_anon_sym_default,
      mozjs_anon_sym_import, mozjs_anon_sym_with, mozjs_anon_sym_var, mozjs_anon_sym_let,
      mozjs_anon_sym_const, mozjs_anon_sym_using, mozjs_anon_sym_await, mozjs_anon_sym_else,
      mozjs_anon_sym_if, mozjs_anon_sym_switch, mozjs_anon_sym_for, mozjs_anon_sym_while,
      mozjs_anon_sym_do, mozjs_anon_sym_try, mozjs_anon_sym_break, mozjs_anon_sym_continue,
      mozjs_anon_sym_debugger, mozjs_anon_sym_return, mozjs_anon_sym_throw, mozjs_anon_sym_case,
      mozjs_anon_sym_yield, mozjs_anon_sym_class, mozjs_anon_sym_async, mozjs_anon_sym_function,
      mozjs_anon_sym_new, mozjs_anon_sym_PLUS, mozjs_anon_sym_DASH, mozjs_anon_sym_SLASH,
      mozjs_anon_sym_typeof, mozjs_anon_sym_void, mozjs_anon_sym_delete, mozjs_sym_identifier,
      mozjs_sym_private_property_identifier, mozjs_sym_this, mozjs_sym_super, mozjs_sym_true,
      mozjs_sym_false, mozjs_sym_null, mozjs_sym_undefined, mozjs_anon_sym_static,
      mozjs_anon_sym_get, mozjs_anon_sym_set]"

definition mozjs_small_run_2690 :: "nat list" where
  "mozjs_small_run_2690 =
    [3, 5, 2, mozjs_sym_html_comment, mozjs_sym_comment, 1231, 17, ts_builtin_sym_end,
      mozjs_anon_sym_LBRACE, mozjs_anon_sym_RBRACE, mozjs_anon_sym_LPAREN, mozjs_anon_sym_SEMI,
      mozjs_anon_sym_LBRACK, mozjs_anon_sym_LT, mozjs_anon_sym_DQUOTE, mozjs_anon_sym_SQUOTE,
      mozjs_anon_sym_BANG, mozjs_anon_sym_TILDE, mozjs_anon_sym_PLUS_PLUS,
      mozjs_anon_sym_DASH_DASH, mozjs_anon_sym_BQUOTE, mozjs_sym_number, mozjs_anon_sym_AT,
      mozjs_sym_preproc, 1233, 44, mozjs_anon_sym_export, mozjs_anon_sym_default,
      mozjs_anon_sym_import, mozjs_anon_sym_with, mozjs_anon_sym_var, mozjs_anon_sym_let,
      mozjs_anon_sym_const, mozjs_anon_sym_using, mozjs_anon_sym_await, mozjs_anon_sym_else,
      mozjs_anon_sym_if, mozjs_anon_sym_switch, mozjs_anon_sym_for, mozjs_anon_sym_while,
      mozjs_anon_sym_do, mozjs_anon_sym_try, mozjs_anon_sym_break, mozjs_anon_sym_continue,
      mozjs_anon_sym_debugger, mozjs_anon_sym_return, mozjs_anon_sym_throw, mozjs_anon_sym_case,
      mozjs_anon_sym_yield, mozjs_anon_sym_class, mozjs_anon_sym_async, mozjs_anon_sym_function,
      mozjs_anon_sym_new, mozjs_anon_sym_PLUS, mozjs_anon_sym_DASH, mozjs_anon_sym_SLASH,
      mozjs_anon_sym_typeof, mozjs_anon_sym_void, mozjs_anon_sym_delete, mozjs_sym_identifier,
      mozjs_sym_private_property_identifier, mozjs_sym_this, mozjs_sym_super, mozjs_sym_true,
      mozjs_sym_false, mozjs_sym_null, mozjs_sym_undefined, mozjs_anon_sym_static,
      mozjs_anon_sym_get, mozjs_anon_sym_set]"

definition mozjs_small_run_2760 :: "nat list" where
  "mozjs_small_run_2760 =
    [3, 5, 2, mozjs_sym_html_comment, mozjs_sym_comment, 1183, 17, ts_builtin_sym_end,
      mozjs_anon_sym_LBRACE, mozjs_anon_sym_RBRACE, mozjs_anon_sym_LPAREN, mozjs_anon_sym_SEMI,
      mozjs_anon_sym_LBRACK, mozjs_anon_sym_LT, mozjs_anon_sym_DQUOTE, mozjs_anon_sym_SQUOTE,
      mozjs_anon_sym_BANG, mozjs_anon_sym_TILDE, mozjs_anon_sym_PLUS_PLUS,
      mozjs_anon_sym_DASH_DASH, mozjs_anon_sym_BQUOTE, mozjs_sym_number, mozjs_anon_sym_AT,
      mozjs_sym_preproc, 1185, 44, mozjs_anon_sym_export, mozjs_anon_sym_default,
      mozjs_anon_sym_import, mozjs_anon_sym_with, mozjs_anon_sym_var, mozjs_anon_sym_let,
      mozjs_anon_sym_const, mozjs_anon_sym_using, mozjs_anon_sym_await, mozjs_anon_sym_else,
      mozjs_anon_sym_if, mozjs_anon_sym_switch, mozjs_anon_sym_for, mozjs_anon_sym_while,
      mozjs_anon_sym_do, mozjs_anon_sym_try, mozjs_anon_sym_break, mozjs_anon_sym_continue,
      mozjs_anon_sym_debugger, mozjs_anon_sym_return, mozjs_anon_sym_throw, mozjs_anon_sym_case,
      mozjs_anon_sym_yield, mozjs_anon_sym_class, mozjs_anon_sym_async, mozjs_anon_sym_function,
      mozjs_anon_sym_new, mozjs_anon_sym_PLUS, mozjs_anon_sym_DASH, mozjs_anon_sym_SLASH,
      mozjs_anon_sym_typeof, mozjs_anon_sym_void, mozjs_anon_sym_delete, mozjs_sym_identifier,
      mozjs_sym_private_property_identifier, mozjs_sym_this, mozjs_sym_super, mozjs_sym_true,
      mozjs_sym_false, mozjs_sym_null, mozjs_sym_undefined, mozjs_anon_sym_static,
      mozjs_anon_sym_get, mozjs_anon_sym_set]"

definition mozjs_small_run_2830 :: "nat list" where
  "mozjs_small_run_2830 =
    [3, 5, 2, mozjs_sym_html_comment, mozjs_sym_comment, 1235, 17, ts_builtin_sym_end,
      mozjs_anon_sym_LBRACE, mozjs_anon_sym_RBRACE, mozjs_anon_sym_LPAREN, mozjs_anon_sym_SEMI,
      mozjs_anon_sym_LBRACK, mozjs_anon_sym_LT, mozjs_anon_sym_DQUOTE, mozjs_anon_sym_SQUOTE,
      mozjs_anon_sym_BANG, mozjs_anon_sym_TILDE, mozjs_anon_sym_PLUS_PLUS,
      mozjs_anon_sym_DASH_DASH, mozjs_anon_sym_BQUOTE, mozjs_sym_number, mozjs_anon_sym_AT,
      mozjs_sym_preproc, 1237, 44, mozjs_anon_sym_export, mozjs_anon_sym_default,
      mozjs_anon_sym_import, mozjs_anon_sym_with, mozjs_anon_sym_var, mozjs_anon_sym_let,
      mozjs_anon_sym_const, mozjs_anon_sym_using, mozjs_anon_sym_await, mozjs_anon_sym_else,
      mozjs_anon_sym_if, mozjs_anon_sym_switch, mozjs_anon_sym_for, mozjs_anon_sym_while,
      mozjs_anon_sym_do, mozjs_anon_sym_try, mozjs_anon_sym_break, mozjs_anon_sym_continue,
      mozjs_anon_sym_debugger, mozjs_anon_sym_return, mozjs_anon_sym_throw, mozjs_anon_sym_case,
      mozjs_anon_sym_yield, mozjs_anon_sym_class, mozjs_anon_sym_async, mozjs_anon_sym_function,
      mozjs_anon_sym_new, mozjs_anon_sym_PLUS, mozjs_anon_sym_DASH, mozjs_anon_sym_SLASH,
      mozjs_anon_sym_typeof, mozjs_anon_sym_void, mozjs_anon_sym_delete, mozjs_sym_identifier,
      mozjs_sym_private_property_identifier, mozjs_sym_this, mozjs_sym_super, mozjs_sym_true,
      mozjs_sym_false, mozjs_sym_null, mozjs_sym_undefined, mozjs_anon_sym_static,
      mozjs_anon_sym_get, mozjs_anon_sym_set]"

definition mozjs_small_run_2900 :: "nat list" where
  "mozjs_small_run_2900 =
    [3, 5, 2, mozjs_sym_html_comment, mozjs_sym_comment, 1239, 17, ts_builtin_sym_end,
      mozjs_anon_sym_LBRACE, mozjs_anon_sym_RBRACE, mozjs_anon_sym_LPAREN, mozjs_anon_sym_SEMI,
      mozjs_anon_sym_LBRACK, mozjs_anon_sym_LT, mozjs_anon_sym_DQUOTE, mozjs_anon_sym_SQUOTE,
      mozjs_anon_sym_BANG, mozjs_anon_sym_TILDE, mozjs_anon_sym_PLUS_PLUS,
      mozjs_anon_sym_DASH_DASH, mozjs_anon_sym_BQUOTE, mozjs_sym_number, mozjs_anon_sym_AT,
      mozjs_sym_preproc, 1241, 44, mozjs_anon_sym_export, mozjs_anon_sym_default,
      mozjs_anon_sym_import, mozjs_anon_sym_with, mozjs_anon_sym_var, mozjs_anon_sym_let,
      mozjs_anon_sym_const, mozjs_anon_sym_using, mozjs_anon_sym_await, mozjs_anon_sym_else,
      mozjs_anon_sym_if, mozjs_anon_sym_switch, mozjs_anon_sym_for, mozjs_anon_sym_while,
      mozjs_anon_sym_do, mozjs_anon_sym_try, mozjs_anon_sym_break, mozjs_anon_sym_continue,
      mozjs_anon_sym_debugger, mozjs_anon_sym_return, mozjs_anon_sym_throw, mozjs_anon_sym_case,
      mozjs_anon_sym_yield, mozjs_anon_sym_class, mozjs_anon_sym_async, mozjs_anon_sym_function,
      mozjs_anon_sym_new, mozjs_anon_sym_PLUS, mozjs_anon_sym_DASH, mozjs_anon_sym_SLASH,
      mozjs_anon_sym_typeof, mozjs_anon_sym_void, mozjs_anon_sym_delete, mozjs_sym_identifier,
      mozjs_sym_private_property_identifier, mozjs_sym_this, mozjs_sym_super, mozjs_sym_true,
      mozjs_sym_false, mozjs_sym_null, mozjs_sym_undefined, mozjs_anon_sym_static,
      mozjs_anon_sym_get, mozjs_anon_sym_set]"

definition mozjs_small_run_2970 :: "nat list" where
  "mozjs_small_run_2970 =
    [3, 5, 2, mozjs_sym_html_comment, mozjs_sym_comment, 1243, 17, ts_builtin_sym_end,
      mozjs_anon_sym_LBRACE, mozjs_anon_sym_RBRACE, mozjs_anon_sym_LPAREN, mozjs_anon_sym_SEMI,
      mozjs_anon_sym_LBRACK, mozjs_anon_sym_LT, mozjs_anon_sym_DQUOTE, mozjs_anon_sym_SQUOTE,
      mozjs_anon_sym_BANG, mozjs_anon_sym_TILDE, mozjs_anon_sym_PLUS_PLUS,
      mozjs_anon_sym_DASH_DASH, mozjs_anon_sym_BQUOTE, mozjs_sym_number, mozjs_anon_sym_AT,
      mozjs_sym_preproc, 1245, 44, mozjs_anon_sym_export, mozjs_anon_sym_default,
      mozjs_anon_sym_import, mozjs_anon_sym_with, mozjs_anon_sym_var, mozjs_anon_sym_let,
      mozjs_anon_sym_const, mozjs_anon_sym_using, mozjs_anon_sym_await, mozjs_anon_sym_else,
      mozjs_anon_sym_if, mozjs_anon_sym_switch, mozjs_anon_sym_for, mozjs_anon_sym_while,
      mozjs_anon_sym_do, mozjs_anon_sym_try, mozjs_anon_sym_break, mozjs_anon_sym_continue,
      mozjs_anon_sym_debugger, mozjs_anon_sym_return, mozjs_anon_sym_throw, mozjs_anon_sym_case,
      mozjs_anon_sym_yield, mozjs_anon_sym_class, mozjs_anon_sym_async, mozjs_anon_sym_function,
      mozjs_anon_sym_new, mozjs_anon_sym_PLUS, mozjs_anon_sym_DASH, mozjs_anon_sym_SLASH,
      mozjs_anon_sym_typeof, mozjs_anon_sym_void, mozjs_anon_sym_delete, mozjs_sym_identifier,
      mozjs_sym_private_property_identifier, mozjs_sym_this, mozjs_sym_super, mozjs_sym_true,
      mozjs_sym_false, mozjs_sym_null, mozjs_sym_undefined, mozjs_anon_sym_static,
      mozjs_anon_sym_get, mozjs_anon_sym_set]"

definition mozjs_small_run_3040 :: "nat list" where
  "mozjs_small_run_3040 =
    [3, 5, 2, mozjs_sym_html_comment, mozjs_sym_comment, 1247, 17, ts_builtin_sym_end,
      mozjs_anon_sym_LBRACE, mozjs_anon_sym_RBRACE, mozjs_anon_sym_LPAREN, mozjs_anon_sym_SEMI,
      mozjs_anon_sym_LBRACK, mozjs_anon_sym_LT, mozjs_anon_sym_DQUOTE, mozjs_anon_sym_SQUOTE,
      mozjs_anon_sym_BANG, mozjs_anon_sym_TILDE, mozjs_anon_sym_PLUS_PLUS,
      mozjs_anon_sym_DASH_DASH, mozjs_anon_sym_BQUOTE, mozjs_sym_number, mozjs_anon_sym_AT,
      mozjs_sym_preproc, 1249, 44, mozjs_anon_sym_export, mozjs_anon_sym_default,
      mozjs_anon_sym_import, mozjs_anon_sym_with, mozjs_anon_sym_var, mozjs_anon_sym_let,
      mozjs_anon_sym_const, mozjs_anon_sym_using, mozjs_anon_sym_await, mozjs_anon_sym_else,
      mozjs_anon_sym_if, mozjs_anon_sym_switch, mozjs_anon_sym_for, mozjs_anon_sym_while,
      mozjs_anon_sym_do, mozjs_anon_sym_try, mozjs_anon_sym_break, mozjs_anon_sym_continue,
      mozjs_anon_sym_debugger, mozjs_anon_sym_return, mozjs_anon_sym_throw, mozjs_anon_sym_case,
      mozjs_anon_sym_yield, mozjs_anon_sym_class, mozjs_anon_sym_async, mozjs_anon_sym_function,
      mozjs_anon_sym_new, mozjs_anon_sym_PLUS, mozjs_anon_sym_DASH, mozjs_anon_sym_SLASH,
      mozjs_anon_sym_typeof, mozjs_anon_sym_void, mozjs_anon_sym_delete, mozjs_sym_identifier,
      mozjs_sym_private_property_identifier, mozjs_sym_this, mozjs_sym_super, mozjs_sym_true,
      mozjs_sym_false, mozjs_sym_null, mozjs_sym_undefined, mozjs_anon_sym_static,
      mozjs_anon_sym_get, mozjs_anon_sym_set]"

definition mozjs_small_run_3110 :: "nat list" where
  "mozjs_small_run_3110 =
    [3, 5, 2, mozjs_sym_html_comment, mozjs_sym_comment, 1251, 17, ts_builtin_sym_end,
      mozjs_anon_sym_LBRACE, mozjs_anon_sym_RBRACE, mozjs_anon_sym_LPAREN, mozjs_anon_sym_SEMI,
      mozjs_anon_sym_LBRACK, mozjs_anon_sym_LT, mozjs_anon_sym_DQUOTE, mozjs_anon_sym_SQUOTE,
      mozjs_anon_sym_BANG, mozjs_anon_sym_TILDE, mozjs_anon_sym_PLUS_PLUS,
      mozjs_anon_sym_DASH_DASH, mozjs_anon_sym_BQUOTE, mozjs_sym_number, mozjs_anon_sym_AT,
      mozjs_sym_preproc, 1253, 44, mozjs_anon_sym_export, mozjs_anon_sym_default,
      mozjs_anon_sym_import, mozjs_anon_sym_with, mozjs_anon_sym_var, mozjs_anon_sym_let,
      mozjs_anon_sym_const, mozjs_anon_sym_using, mozjs_anon_sym_await, mozjs_anon_sym_else,
      mozjs_anon_sym_if, mozjs_anon_sym_switch, mozjs_anon_sym_for, mozjs_anon_sym_while,
      mozjs_anon_sym_do, mozjs_anon_sym_try, mozjs_anon_sym_break, mozjs_anon_sym_continue,
      mozjs_anon_sym_debugger, mozjs_anon_sym_return, mozjs_anon_sym_throw, mozjs_anon_sym_case,
      mozjs_anon_sym_yield, mozjs_anon_sym_class, mozjs_anon_sym_async, mozjs_anon_sym_function,
      mozjs_anon_sym_new, mozjs_anon_sym_PLUS, mozjs_anon_sym_DASH, mozjs_anon_sym_SLASH,
      mozjs_anon_sym_typeof, mozjs_anon_sym_void, mozjs_anon_sym_delete, mozjs_sym_identifier,
      mozjs_sym_private_property_identifier, mozjs_sym_this, mozjs_sym_super, mozjs_sym_true,
      mozjs_sym_false, mozjs_sym_null, mozjs_sym_undefined, mozjs_anon_sym_static,
      mozjs_anon_sym_get, mozjs_anon_sym_set]"

definition mozjs_small_run_3180 :: "nat list" where
  "mozjs_small_run_3180 =
    [3, 5, 2, mozjs_sym_html_comment, mozjs_sym_comment, 1251, 17, ts_builtin_sym_end,
      mozjs_anon_sym_LBRACE, mozjs_anon_sym_RBRACE, mozjs_anon_sym_LPAREN, mozjs_anon_sym_SEMI,
      mozjs_anon_sym_LBRACK, mozjs_anon_sym_LT, mozjs_anon_sym_DQUOTE, mozjs_anon_sym_SQUOTE,
      mozjs_anon_sym_BANG, mozjs_anon_sym_TILDE, mozjs_anon_sym_PLUS_PLUS,
      mozjs_anon_sym_DASH_DASH, mozjs_anon_sym_BQUOTE, mozjs_sym_number, mozjs_anon_sym_AT,
      mozjs_sym_preproc, 1253, 44, mozjs_anon_sym_export, mozjs_anon_sym_default,
      mozjs_anon_sym_import, mozjs_anon_sym_with, mozjs_anon_sym_var, mozjs_anon_sym_let,
      mozjs_anon_sym_const, mozjs_anon_sym_using, mozjs_anon_sym_await, mozjs_anon_sym_else,
      mozjs_anon_sym_if, mozjs_anon_sym_switch, mozjs_anon_sym_for, mozjs_anon_sym_while,
      mozjs_anon_sym_do, mozjs_anon_sym_try, mozjs_anon_sym_break, mozjs_anon_sym_continue,
      mozjs_anon_sym_debugger, mozjs_anon_sym_return, mozjs_anon_sym_throw, mozjs_anon_sym_case,
      mozjs_anon_sym_yield, mozjs_anon_sym_class, mozjs_anon_sym_async, mozjs_anon_sym_function,
      mozjs_anon_sym_new, mozjs_anon_sym_PLUS, mozjs_anon_sym_DASH, mozjs_anon_sym_SLASH,
      mozjs_anon_sym_typeof, mozjs_anon_sym_void, mozjs_anon_sym_delete, mozjs_sym_identifier,
      mozjs_sym_private_property_identifier, mozjs_sym_this, mozjs_sym_super, mozjs_sym_true,
      mozjs_sym_false, mozjs_sym_null, mozjs_sym_undefined, mozjs_anon_sym_static,
      mozjs_anon_sym_get, mozjs_anon_sym_set]"

definition mozjs_small_run_3250 :: "nat list" where
  "mozjs_small_run_3250 =
    [3, 5, 2, mozjs_sym_html_comment, mozjs_sym_comment, 1255, 17, ts_builtin_sym_end,
      mozjs_anon_sym_LBRACE, mozjs_anon_sym_RBRACE, mozjs_anon_sym_LPAREN, mozjs_anon_sym_SEMI,
      mozjs_anon_sym_LBRACK, mozjs_anon_sym_LT, mozjs_anon_sym_DQUOTE, mozjs_anon_sym_SQUOTE,
      mozjs_anon_sym_BANG, mozjs_anon_sym_TILDE, mozjs_anon_sym_PLUS_PLUS,
      mozjs_anon_sym_DASH_DASH, mozjs_anon_sym_BQUOTE, mozjs_sym_number, mozjs_anon_sym_AT,
      mozjs_sym_preproc, 1257, 44, mozjs_anon_sym_export, mozjs_anon_sym_default,
      mozjs_anon_sym_import, mozjs_anon_sym_with, mozjs_anon_sym_var, mozjs_anon_sym_let,
      mozjs_anon_sym_const, mozjs_anon_sym_using, mozjs_anon_sym_await, mozjs_anon_sym_else,
      mozjs_anon_sym_if, mozjs_anon_sym_switch, mozjs_anon_sym_for, mozjs_anon_sym_while,
      mozjs_anon_sym_do, mozjs_anon_sym_try, mozjs_anon_sym_break, mozjs_anon_sym_continue,
      mozjs_anon_sym_debugger, mozjs_anon_sym_return, mozjs_anon_sym_throw, mozjs_anon_sym_case,
      mozjs_anon_sym_yield, mozjs_anon_sym_class, mozjs_anon_sym_async, mozjs_anon_sym_function,
      mozjs_anon_sym_new, mozjs_anon_sym_PLUS, mozjs_anon_sym_DASH, mozjs_anon_sym_SLASH,
      mozjs_anon_sym_typeof, mozjs_anon_sym_void, mozjs_anon_sym_delete, mozjs_sym_identifier,
      mozjs_sym_private_property_identifier, mozjs_sym_this, mozjs_sym_super, mozjs_sym_true,
      mozjs_sym_false, mozjs_sym_null, mozjs_sym_undefined, mozjs_anon_sym_static,
      mozjs_anon_sym_get, mozjs_anon_sym_set]"

definition mozjs_small_run_3320 :: "nat list" where
  "mozjs_small_run_3320 =
    [3, 5, 2, mozjs_sym_html_comment, mozjs_sym_comment, 1259, 17, ts_builtin_sym_end,
      mozjs_anon_sym_LBRACE, mozjs_anon_sym_RBRACE, mozjs_anon_sym_LPAREN, mozjs_anon_sym_SEMI,
      mozjs_anon_sym_LBRACK, mozjs_anon_sym_LT, mozjs_anon_sym_DQUOTE, mozjs_anon_sym_SQUOTE,
      mozjs_anon_sym_BANG, mozjs_anon_sym_TILDE, mozjs_anon_sym_PLUS_PLUS,
      mozjs_anon_sym_DASH_DASH, mozjs_anon_sym_BQUOTE, mozjs_sym_number, mozjs_anon_sym_AT,
      mozjs_sym_preproc, 1261, 44, mozjs_anon_sym_export, mozjs_anon_sym_default,
      mozjs_anon_sym_import, mozjs_anon_sym_with, mozjs_anon_sym_var, mozjs_anon_sym_let,
      mozjs_anon_sym_const, mozjs_anon_sym_using, mozjs_anon_sym_await, mozjs_anon_sym_else,
      mozjs_anon_sym_if, mozjs_anon_sym_switch, mozjs_anon_sym_for, mozjs_anon_sym_while,
      mozjs_anon_sym_do, mozjs_anon_sym_try, mozjs_anon_sym_break, mozjs_anon_sym_continue,
      mozjs_anon_sym_debugger, mozjs_anon_sym_return, mozjs_anon_sym_throw, mozjs_anon_sym_case,
      mozjs_anon_sym_yield, mozjs_anon_sym_class, mozjs_anon_sym_async, mozjs_anon_sym_function,
      mozjs_anon_sym_new, mozjs_anon_sym_PLUS, mozjs_anon_sym_DASH, mozjs_anon_sym_SLASH,
      mozjs_anon_sym_typeof, mozjs_anon_sym_void, mozjs_anon_sym_delete, mozjs_sym_identifier,
      mozjs_sym_private_property_identifier, mozjs_sym_this, mozjs_sym_super, mozjs_sym_true,
      mozjs_sym_false, mozjs_sym_null, mozjs_sym_undefined, mozjs_anon_sym_static,
      mozjs_anon_sym_get, mozjs_anon_sym_set]"

definition mozjs_small_run_3390 :: "nat list" where
  "mozjs_small_run_3390 =
    [3, 5, 2, mozjs_sym_html_comment, mozjs_sym_comment, 1263, 17, ts_builtin_sym_end,
      mozjs_anon_sym_LBRACE, mozjs_anon_sym_RBRACE, mozjs_anon_sym_LPAREN, mozjs_anon_sym_SEMI,
      mozjs_anon_sym_LBRACK, mozjs_anon_sym_LT, mozjs_anon_sym_DQUOTE, mozjs_anon_sym_SQUOTE,
      mozjs_anon_sym_BANG, mozjs_anon_sym_TILDE, mozjs_anon_sym_PLUS_PLUS,
      mozjs_anon_sym_DASH_DASH, mozjs_anon_sym_BQUOTE, mozjs_sym_number, mozjs_anon_sym_AT,
      mozjs_sym_preproc, 1265, 44, mozjs_anon_sym_export, mozjs_anon_sym_default,
      mozjs_anon_sym_import, mozjs_anon_sym_with, mozjs_anon_sym_var, mozjs_anon_sym_let,
      mozjs_anon_sym_const, mozjs_anon_sym_using, mozjs_anon_sym_await, mozjs_anon_sym_else,
      mozjs_anon_sym_if, mozjs_anon_sym_switch, mozjs_anon_sym_for, mozjs_anon_sym_while,
      mozjs_anon_sym_do, mozjs_anon_sym_try, mozjs_anon_sym_break, mozjs_anon_sym_continue,
      mozjs_anon_sym_debugger, mozjs_anon_sym_return, mozjs_anon_sym_throw, mozjs_anon_sym_case,
      mozjs_anon_sym_yield, mozjs_anon_sym_class, mozjs_anon_sym_async, mozjs_anon_sym_function,
      mozjs_anon_sym_new, mozjs_anon_sym_PLUS, mozjs_anon_sym_DASH, mozjs_anon_sym_SLASH,
      mozjs_anon_sym_typeof, mozjs_anon_sym_void, mozjs_anon_sym_delete, mozjs_sym_identifier,
      mozjs_sym_private_property_identifier, mozjs_sym_this, mozjs_sym_super, mozjs_sym_true,
      mozjs_sym_false, mozjs_sym_null, mozjs_sym_undefined, mozjs_anon_sym_static,
      mozjs_anon_sym_get, mozjs_anon_sym_set]"

definition mozjs_small_run_3460 :: "nat list" where
  "mozjs_small_run_3460 =
    [3, 5, 2, mozjs_sym_html_comment, mozjs_sym_comment, 1267, 17, ts_builtin_sym_end,
      mozjs_anon_sym_LBRACE, mozjs_anon_sym_RBRACE, mozjs_anon_sym_LPAREN, mozjs_anon_sym_SEMI,
      mozjs_anon_sym_LBRACK, mozjs_anon_sym_LT, mozjs_anon_sym_DQUOTE, mozjs_anon_sym_SQUOTE,
      mozjs_anon_sym_BANG, mozjs_anon_sym_TILDE, mozjs_anon_sym_PLUS_PLUS,
      mozjs_anon_sym_DASH_DASH, mozjs_anon_sym_BQUOTE, mozjs_sym_number, mozjs_anon_sym_AT,
      mozjs_sym_preproc, 1269, 44, mozjs_anon_sym_export, mozjs_anon_sym_default,
      mozjs_anon_sym_import, mozjs_anon_sym_with, mozjs_anon_sym_var, mozjs_anon_sym_let,
      mozjs_anon_sym_const, mozjs_anon_sym_using, mozjs_anon_sym_await, mozjs_anon_sym_else,
      mozjs_anon_sym_if, mozjs_anon_sym_switch, mozjs_anon_sym_for, mozjs_anon_sym_while,
      mozjs_anon_sym_do, mozjs_anon_sym_try, mozjs_anon_sym_break, mozjs_anon_sym_continue,
      mozjs_anon_sym_debugger, mozjs_anon_sym_return, mozjs_anon_sym_throw, mozjs_anon_sym_case,
      mozjs_anon_sym_yield, mozjs_anon_sym_class, mozjs_anon_sym_async, mozjs_anon_sym_function,
      mozjs_anon_sym_new, mozjs_anon_sym_PLUS, mozjs_anon_sym_DASH, mozjs_anon_sym_SLASH,
      mozjs_anon_sym_typeof, mozjs_anon_sym_void, mozjs_anon_sym_delete, mozjs_sym_identifier,
      mozjs_sym_private_property_identifier, mozjs_sym_this, mozjs_sym_super, mozjs_sym_true,
      mozjs_sym_false, mozjs_sym_null, mozjs_sym_undefined, mozjs_anon_sym_static,
      mozjs_anon_sym_get, mozjs_anon_sym_set]"

definition mozjs_small_run_3530 :: "nat list" where
  "mozjs_small_run_3530 =
    [3, 5, 2, mozjs_sym_html_comment, mozjs_sym_comment, 1271, 17, ts_builtin_sym_end,
      mozjs_anon_sym_LBRACE, mozjs_anon_sym_RBRACE, mozjs_anon_sym_LPAREN, mozjs_anon_sym_SEMI,
      mozjs_anon_sym_LBRACK, mozjs_anon_sym_LT, mozjs_anon_sym_DQUOTE, mozjs_anon_sym_SQUOTE,
      mozjs_anon_sym_BANG, mozjs_anon_sym_TILDE, mozjs_anon_sym_PLUS_PLUS,
      mozjs_anon_sym_DASH_DASH, mozjs_anon_sym_BQUOTE, mozjs_sym_number, mozjs_anon_sym_AT,
      mozjs_sym_preproc, 1273, 44, mozjs_anon_sym_export, mozjs_anon_sym_default,
      mozjs_anon_sym_import, mozjs_anon_sym_with, mozjs_anon_sym_var, mozjs_anon_sym_let,
      mozjs_anon_sym_const, mozjs_anon_sym_using, mozjs_anon_sym_await, mozjs_anon_sym_else,
      mozjs_anon_sym_if, mozjs_anon_sym_switch, mozjs_anon_sym_for, mozjs_anon_sym_while,
      mozjs_anon_sym_do, mozjs_anon_sym_try, mozjs_anon_sym_break, mozjs_anon_sym_continue,
      mozjs_anon_sym_debugger, mozjs_anon_sym_return, mozjs_anon_sym_throw, mozjs_anon_sym_case,
      mozjs_anon_sym_yield, mozjs_anon_sym_class, mozjs_anon_sym_async, mozjs_anon_sym_function,
      mozjs_anon_sym_new, mozjs_anon_sym_PLUS, mozjs_anon_sym_DASH, mozjs_anon_sym_SLASH,
      mozjs_anon_sym_typeof, mozjs_anon_sym_void, mozjs_anon_sym_delete, mozjs_sym_identifier,
      mozjs_sym_private_property_identifier, mozjs_sym_this, mozjs_sym_super, mozjs_sym_true,
      mozjs_sym_false, mozjs_sym_null, mozjs_sym_undefined, mozjs_anon_sym_static,
      mozjs_anon_sym_get, mozjs_anon_sym_set]"

definition mozjs_small_run_3600 :: "nat list" where
  "mozjs_small_run_3600 =
    [3, 5, 2, mozjs_sym_html_comment, mozjs_sym_comment, 1275, 17, ts_builtin_sym_end,
      mozjs_anon_sym_LBRACE, mozjs_anon_sym_RBRACE, mozjs_anon_sym_LPAREN, mozjs_anon_sym_SEMI,
      mozjs_anon_sym_LBRACK, mozjs_anon_sym_LT, mozjs_anon_sym_DQUOTE, mozjs_anon_sym_SQUOTE,
      mozjs_anon_sym_BANG, mozjs_anon_sym_TILDE, mozjs_anon_sym_PLUS_PLUS,
      mozjs_anon_sym_DASH_DASH, mozjs_anon_sym_BQUOTE, mozjs_sym_number, mozjs_anon_sym_AT,
      mozjs_sym_preproc, 1277, 44, mozjs_anon_sym_export, mozjs_anon_sym_default,
      mozjs_anon_sym_import, mozjs_anon_sym_with, mozjs_anon_sym_var, mozjs_anon_sym_let,
      mozjs_anon_sym_const, mozjs_anon_sym_using, mozjs_anon_sym_await, mozjs_anon_sym_else,
      mozjs_anon_sym_if, mozjs_anon_sym_switch, mozjs_anon_sym_for, mozjs_anon_sym_while,
      mozjs_anon_sym_do, mozjs_anon_sym_try, mozjs_anon_sym_break, mozjs_anon_sym_continue,
      mozjs_anon_sym_debugger, mozjs_anon_sym_return, mozjs_anon_sym_throw, mozjs_anon_sym_case,
      mozjs_anon_sym_yield, mozjs_anon_sym_class, mozjs_anon_sym_async, mozjs_anon_sym_function,
      mozjs_anon_sym_new, mozjs_anon_sym_PLUS, mozjs_anon_sym_DASH, mozjs_anon_sym_SLASH,
      mozjs_anon_sym_typeof, mozjs_anon_sym_void, mozjs_anon_sym_delete, mozjs_sym_identifier,
      mozjs_sym_private_property_identifier, mozjs_sym_this, mozjs_sym_super, mozjs_sym_true,
      mozjs_sym_false, mozjs_sym_null, mozjs_sym_undefined, mozjs_anon_sym_static,
      mozjs_anon_sym_get, mozjs_anon_sym_set]"

definition mozjs_small_run_3670 :: "nat list" where
  "mozjs_small_run_3670 =
    [3, 5, 2, mozjs_sym_html_comment, mozjs_sym_comment, 1279, 17, ts_builtin_sym_end,
      mozjs_anon_sym_LBRACE, mozjs_anon_sym_RBRACE, mozjs_anon_sym_LPAREN, mozjs_anon_sym_SEMI,
      mozjs_anon_sym_LBRACK, mozjs_anon_sym_LT, mozjs_anon_sym_DQUOTE, mozjs_anon_sym_SQUOTE,
      mozjs_anon_sym_BANG, mozjs_anon_sym_TILDE, mozjs_anon_sym_PLUS_PLUS,
      mozjs_anon_sym_DASH_DASH, mozjs_anon_sym_BQUOTE, mozjs_sym_number, mozjs_anon_sym_AT,
      mozjs_sym_preproc, 1281, 44, mozjs_anon_sym_export, mozjs_anon_sym_default,
      mozjs_anon_sym_import, mozjs_anon_sym_with, mozjs_anon_sym_var, mozjs_anon_sym_let,
      mozjs_anon_sym_const, mozjs_anon_sym_using, mozjs_anon_sym_await, mozjs_anon_sym_else,
      mozjs_anon_sym_if, mozjs_anon_sym_switch, mozjs_anon_sym_for, mozjs_anon_sym_while,
      mozjs_anon_sym_do, mozjs_anon_sym_try, mozjs_anon_sym_break, mozjs_anon_sym_continue,
      mozjs_anon_sym_debugger, mozjs_anon_sym_return, mozjs_anon_sym_throw, mozjs_anon_sym_case,
      mozjs_anon_sym_yield, mozjs_anon_sym_class, mozjs_anon_sym_async, mozjs_anon_sym_function,
      mozjs_anon_sym_new, mozjs_anon_sym_PLUS, mozjs_anon_sym_DASH, mozjs_anon_sym_SLASH,
      mozjs_anon_sym_typeof, mozjs_anon_sym_void, mozjs_anon_sym_delete, mozjs_sym_identifier,
      mozjs_sym_private_property_identifier, mozjs_sym_this, mozjs_sym_super, mozjs_sym_true,
      mozjs_sym_false, mozjs_sym_null, mozjs_sym_undefined, mozjs_anon_sym_static,
      mozjs_anon_sym_get, mozjs_anon_sym_set]"

definition mozjs_small_run_3740 :: "nat list" where
  "mozjs_small_run_3740 =
    [11, 631, 1, mozjs_anon_sym_EQ, 635, 1, mozjs_anon_sym_EQ_GT, 1104, 1, mozjs_anon_sym_LPAREN,
      1107, 1, mozjs_anon_sym_function, 1283, 1, mozjs_sym_identifier, 1799, 1,
      mozjs_sym_formal_parameters, 5, 2, mozjs_sym_html_comment, mozjs_sym_comment, 1285, 7,
      mozjs_anon_sym_export, mozjs_anon_sym_let, mozjs_anon_sym_await, mozjs_anon_sym_async,
      mozjs_anon_sym_static, mozjs_anon_sym_get, mozjs_anon_sym_set, 311, 12,
      mozjs_sym__ternary_qmark, mozjs_anon_sym_LBRACE, mozjs_anon_sym_LBRACK, mozjs_anon_sym_DOT,
      mozjs_sym_optional_chain, mozjs_anon_sym_LT_EQ, mozjs_anon_sym_EQ_EQ_EQ,
      mozjs_anon_sym_BANG_EQ_EQ, mozjs_anon_sym_GT_EQ, mozjs_anon_sym_PLUS_PLUS,
      mozjs_anon_sym_DASH_DASH, mozjs_anon_sym_BQUOTE, 344, 15, mozjs_anon_sym_PLUS_EQ,
      mozjs_anon_sym_DASH_EQ, mozjs_anon_sym_STAR_EQ, mozjs_anon_sym_SLASH_EQ,
      mozjs_anon_sym_PERCENT_EQ, mozjs_anon_sym_CARET_EQ, mozjs_anon_sym_AMP_EQ,
      mozjs_anon_sym_PIPE_EQ, mozjs_anon_sym_GT_GT_EQ, mozjs_anon_sym_GT_GT_GT_EQ,
      mozjs_anon_sym_LT_LT_EQ, mozjs_anon_sym_STAR_STAR_EQ, mozjs_anon_sym_AMP_AMP_EQ,
      mozjs_anon_sym_PIPE_PIPE_EQ, mozjs_anon_sym_QMARK_QMARK_EQ, 307, 21, mozjs_anon_sym_STAR,
      mozjs_anon_sym_in, mozjs_anon_sym_LT, mozjs_anon_sym_GT, mozjs_anon_sym_AMP_AMP,
      mozjs_anon_sym_PIPE_PIPE, mozjs_anon_sym_GT_GT, mozjs_anon_sym_GT_GT_GT,
      mozjs_anon_sym_LT_LT, mozjs_anon_sym_AMP, mozjs_anon_sym_CARET, mozjs_anon_sym_PIPE,
      mozjs_anon_sym_PLUS, mozjs_anon_sym_DASH, mozjs_anon_sym_SLASH, mozjs_anon_sym_PERCENT,
      mozjs_anon_sym_STAR_STAR, mozjs_anon_sym_EQ_EQ, mozjs_anon_sym_BANG_EQ,
      mozjs_anon_sym_QMARK_QMARK, mozjs_anon_sym_instanceof]"

definition mozjs_small_run_3826 :: "nat list" where
  "mozjs_small_run_3826 =
    [3, 5, 2, mozjs_sym_html_comment, mozjs_sym_comment, 1287, 17, ts_builtin_sym_end,
      mozjs_anon_sym_LBRACE, mozjs_anon_sym_RBRACE, mozjs_anon_sym_LPAREN, mozjs_anon_sym_SEMI,
      mozjs_anon_sym_LBRACK, mozjs_anon_sym_LT, mozjs_anon_sym_DQUOTE, mozjs_anon_sym_SQUOTE,
      mozjs_anon_sym_BANG, mozjs_anon_sym_TILDE, mozjs_anon_sym_PLUS_PLUS,
      mozjs_anon_sym_DASH_DASH, mozjs_anon_sym_BQUOTE, mozjs_sym_number, mozjs_anon_sym_AT,
      mozjs_sym_preproc, 1289, 44, mozjs_anon_sym_export, mozjs_anon_sym_default,
      mozjs_anon_sym_import, mozjs_anon_sym_with, mozjs_anon_sym_var, mozjs_anon_sym_let,
      mozjs_anon_sym_const, mozjs_anon_sym_using, mozjs_anon_sym_await, mozjs_anon_sym_else,
      mozjs_anon_sym_if, mozjs_anon_sym_switch, mozjs_anon_sym_for, mozjs_anon_sym_while,
      mozjs_anon_sym_do, mozjs_anon_sym_try, mozjs_anon_sym_break, mozjs_anon_sym_continue,
      mozjs_anon_sym_debugger, mozjs_anon_sym_return, mozjs_anon_sym_throw, mozjs_anon_sym_case,
      mozjs_anon_sym_yield, mozjs_anon_sym_class, mozjs_anon_sym_async, mozjs_anon_sym_function,
      mozjs_anon_sym_new, mozjs_anon_sym_PLUS, mozjs_anon_sym_DASH, mozjs_anon_sym_SLASH,
      mozjs_anon_sym_typeof, mozjs_anon_sym_void, mozjs_anon_sym_delete, mozjs_sym_identifier,
      mozjs_sym_private_property_identifier, mozjs_sym_this, mozjs_sym_super, mozjs_sym_true,
      mozjs_sym_false, mozjs_sym_null, mozjs_sym_undefined, mozjs_anon_sym_static,
      mozjs_anon_sym_get, mozjs_anon_sym_set]"

definition mozjs_small_run_3896 :: "nat list" where
  "mozjs_small_run_3896 =
    [3, 5, 2, mozjs_sym_html_comment, mozjs_sym_comment, 1291, 17, ts_builtin_sym_end,
      mozjs_anon_sym_LBRACE, mozjs_anon_sym_RBRACE, mozjs_anon_sym_LPAREN, mozjs_anon_sym_SEMI,
      mozjs_anon_sym_LBRACK, mozjs_anon_sym_LT, mozjs_anon_sym_DQUOTE, mozjs_anon_sym_SQUOTE,
      mozjs_anon_sym_BANG, mozjs_anon_sym_TILDE, mozjs_anon_sym_PLUS_PLUS,
      mozjs_anon_sym_DASH_DASH, mozjs_anon_sym_BQUOTE, mozjs_sym_number, mozjs_anon_sym_AT,
      mozjs_sym_preproc, 1293, 44, mozjs_anon_sym_export, mozjs_anon_sym_default,
      mozjs_anon_sym_import, mozjs_anon_sym_with, mozjs_anon_sym_var, mozjs_anon_sym_let,
      mozjs_anon_sym_const, mozjs_anon_sym_using, mozjs_anon_sym_await, mozjs_anon_sym_else,
      mozjs_anon_sym_if, mozjs_anon_sym_switch, mozjs_anon_sym_for, mozjs_anon_sym_while,
      mozjs_anon_sym_do, mozjs_anon_sym_try, mozjs_anon_sym_break, mozjs_anon_sym_continue,
      mozjs_anon_sym_debugger, mozjs_anon_sym_return, mozjs_anon_sym_throw, mozjs_anon_sym_case,
      mozjs_anon_sym_yield, mozjs_anon_sym_class, mozjs_anon_sym_async, mozjs_anon_sym_function,
      mozjs_anon_sym_new, mozjs_anon_sym_PLUS, mozjs_anon_sym_DASH, mozjs_anon_sym_SLASH,
      mozjs_anon_sym_typeof, mozjs_anon_sym_void, mozjs_anon_sym_delete, mozjs_sym_identifier,
      mozjs_sym_private_property_identifier, mozjs_sym_this, mozjs_sym_super, mozjs_sym_true,
      mozjs_sym_false, mozjs_sym_null, mozjs_sym_undefined, mozjs_anon_sym_static,
      mozjs_anon_sym_get, mozjs_anon_sym_set]"

definition mozjs_small_run_3966 :: "nat list" where
  "mozjs_small_run_3966 =
    [3, 5, 2, mozjs_sym_html_comment, mozjs_sym_comment, 1295, 17, ts_builtin_sym_end,
      mozjs_anon_sym_LBRACE, mozjs_anon_sym_RBRACE, mozjs_anon_sym_LPAREN, mozjs_anon_sym_SEMI,
      mozjs_anon_sym_LBRACK, mozjs_anon_sym_LT, mozjs_anon_sym_DQUOTE, mozjs_anon_sym_SQUOTE,
      mozjs_anon_sym_BANG, mozjs_anon_sym_TILDE, mozjs_anon_sym_PLUS_PLUS,
      mozjs_anon_sym_DASH_DASH, mozjs_anon_sym_BQUOTE, mozjs_sym_number, mozjs_anon_sym_AT,
      mozjs_sym_preproc, 1297, 44, mozjs_anon_sym_export, mozjs_anon_sym_default,
      mozjs_anon_sym_import, mozjs_anon_sym_with, mozjs_anon_sym_var, mozjs_anon_sym_let,
      mozjs_anon_sym_const, mozjs_anon_sym_using, mozjs_anon_sym_await, mozjs_anon_sym_else,
      mozjs_anon_sym_if, mozjs_anon_sym_switch, mozjs_anon_sym_for, mozjs_anon_sym_while,
      mozjs_anon_sym_do, mozjs_anon_sym_try, mozjs_anon_sym_break, mozjs_anon_sym_continue,
      mozjs_anon_sym_debugger, mozjs_anon_sym_return, mozjs_anon_sym_throw, mozjs_anon_sym_case,
      mozjs_anon_sym_yield, mozjs_anon_sym_class, mozjs_anon_sym_async, mozjs_anon_sym_function,
      mozjs_anon_sym_new, mozjs_anon_sym_PLUS, mozjs_anon_sym_DASH, mozjs_anon_sym_SLASH,
      mozjs_anon_sym_typeof, mozjs_anon_sym_void, mozjs_anon_sym_delete, mozjs_sym_identifier,
      mozjs_sym_private_property_identifier, mozjs_sym_this, mozjs_sym_super, mozjs_sym_true,
      mozjs_sym_false, mozjs_sym_null, mozjs_sym_undefined, mozjs_anon_sym_static,
      mozjs_anon_sym_get, mozjs_anon_sym_set]"

definition mozjs_small_run_4036 :: "nat list" where
  "mozjs_small_run_4036 =
    [11, 471, 1, mozjs_anon_sym_EQ, 635, 1, mozjs_anon_sym_EQ_GT, 1104, 1, mozjs_anon_sym_LPAREN,
      1107, 1, mozjs_anon_sym_function, 1283, 1, mozjs_sym_identifier, 1799, 1,
      mozjs_sym_formal_parameters, 5, 2, mozjs_sym_html_comment, mozjs_sym_comment, 1285, 7,
      mozjs_anon_sym_export, mozjs_anon_sym_let, mozjs_anon_sym_await, mozjs_anon_sym_async,
      mozjs_anon_sym_static, mozjs_anon_sym_get, mozjs_anon_sym_set, 311, 12,
      mozjs_sym__ternary_qmark, mozjs_anon_sym_LBRACE, mozjs_anon_sym_LBRACK, mozjs_anon_sym_DOT,
      mozjs_sym_optional_chain, mozjs_anon_sym_LT_EQ, mozjs_anon_sym_EQ_EQ_EQ,
      mozjs_anon_sym_BANG_EQ_EQ, mozjs_anon_sym_GT_EQ, mozjs_anon_sym_PLUS_PLUS,
      mozjs_anon_sym_DASH_DASH, mozjs_anon_sym_BQUOTE, 344, 15, mozjs_anon_sym_PLUS_EQ,
      mozjs_anon_sym_DASH_EQ, mozjs_anon_sym_STAR_EQ, mozjs_anon_sym_SLASH_EQ,
      mozjs_anon_sym_PERCENT_EQ, mozjs_anon_sym_CARET_EQ, mozjs_anon_sym_AMP_EQ,
      mozjs_anon_sym_PIPE_EQ, mozjs_anon_sym_GT_GT_EQ, mozjs_anon_sym_GT_GT_GT_EQ,
      mozjs_anon_sym_LT_LT_EQ, mozjs_anon_sym_STAR_STAR_EQ, mozjs_anon_sym_AMP_AMP_EQ,
      mozjs_anon_sym_PIPE_PIPE_EQ, mozjs_anon_sym_QMARK_QMARK_EQ, 307, 21, mozjs_anon_sym_STAR,
      mozjs_anon_sym_in, mozjs_anon_sym_LT, mozjs_anon_sym_GT, mozjs_anon_sym_AMP_AMP,
      mozjs_anon_sym_PIPE_PIPE, mozjs_anon_sym_GT_GT, mozjs_anon_sym_GT_GT_GT,
      mozjs_anon_sym_LT_LT, mozjs_anon_sym_AMP, mozjs_anon_sym_CARET, mozjs_anon_sym_PIPE,
      mozjs_anon_sym_PLUS, mozjs_anon_sym_DASH, mozjs_anon_sym_SLASH, mozjs_anon_sym_PERCENT,
      mozjs_anon_sym_STAR_STAR, mozjs_anon_sym_EQ_EQ, mozjs_anon_sym_BANG_EQ,
      mozjs_anon_sym_QMARK_QMARK, mozjs_anon_sym_instanceof]"

definition mozjs_small_run_4122 :: "nat list" where
  "mozjs_small_run_4122 =
    [3, 5, 2, mozjs_sym_html_comment, mozjs_sym_comment, 1299, 17, ts_builtin_sym_end,
      mozjs_anon_sym_LBRACE, mozjs_anon_sym_RBRACE, mozjs_anon_sym_LPAREN, mozjs_anon_sym_SEMI,
      mozjs_anon_sym_LBRACK, mozjs_anon_sym_LT, mozjs_anon_sym_DQUOTE, mozjs_anon_sym_SQUOTE,
      mozjs_anon_sym_BANG, mozjs_anon_sym_TILDE, mozjs_anon_sym_PLUS_PLUS,
      mozjs_anon_sym_DASH_DASH, mozjs_anon_sym_BQUOTE, mozjs_sym_number, mozjs_anon_sym_AT,
      mozjs_sym_preproc, 1301, 44, mozjs_anon_sym_export, mozjs_anon_sym_default,
      mozjs_anon_sym_import, mozjs_anon_sym_with, mozjs_anon_sym_var, mozjs_anon_sym_let,
      mozjs_anon_sym_const, mozjs_anon_sym_using, mozjs_anon_sym_await, mozjs_anon_sym_else,
      mozjs_anon_sym_if, mozjs_anon_sym_switch, mozjs_anon_sym_for, mozjs_anon_sym_while,
      mozjs_anon_sym_do, mozjs_anon_sym_try, mozjs_anon_sym_break, mozjs_anon_sym_continue,
      mozjs_anon_sym_debugger, mozjs_anon_sym_return, mozjs_anon_sym_throw, mozjs_anon_sym_case,
      mozjs_anon_sym_yield, mozjs_anon_sym_class, mozjs_anon_sym_async, mozjs_anon_sym_function,
      mozjs_anon_sym_new, mozjs_anon_sym_PLUS, mozjs_anon_sym_DASH, mozjs_anon_sym_SLASH,
      mozjs_anon_sym_typeof, mozjs_anon_sym_void, mozjs_anon_sym_delete, mozjs_sym_identifier,
      mozjs_sym_private_property_identifier, mozjs_sym_this, mozjs_sym_super, mozjs_sym_true,
      mozjs_sym_false, mozjs_sym_null, mozjs_sym_undefined, mozjs_anon_sym_static,
      mozjs_anon_sym_get, mozjs_anon_sym_set]"

definition mozjs_small_run_4192 :: "nat list" where
  "mozjs_small_run_4192 =
    [3, 5, 2, mozjs_sym_html_comment, mozjs_sym_comment, 1303, 17, ts_builtin_sym_end,
      mozjs_anon_sym_LBRACE, mozjs_anon_sym_RBRACE, mozjs_anon_sym_LPAREN, mozjs_anon_sym_SEMI,
      mozjs_anon_sym_LBRACK, mozjs_anon_sym_LT, mozjs_anon_sym_DQUOTE, mozjs_anon_sym_SQUOTE,
      mozjs_anon_sym_BANG, mozjs_anon_sym_TILDE, mozjs_anon_sym_PLUS_PLUS,
      mozjs_anon_sym_DASH_DASH, mozjs_anon_sym_BQUOTE, mozjs_sym_number, mozjs_anon_sym_AT,
      mozjs_sym_preproc, 1305, 44, mozjs_anon_sym_export, mozjs_anon_sym_default,
      mozjs_anon_sym_import, mozjs_anon_sym_with, mozjs_anon_sym_var, mozjs_anon_sym_let,
      mozjs_anon_sym_const, mozjs_anon_sym_using, mozjs_anon_sym_await, mozjs_anon_sym_else,
      mozjs_anon_sym_if, mozjs_anon_sym_switch, mozjs_anon_sym_for, mozjs_anon_sym_while,
      mozjs_anon_sym_do, mozjs_anon_sym_try, mozjs_anon_sym_break, mozjs_anon_sym_continue,
      mozjs_anon_sym_debugger, mozjs_anon_sym_return, mozjs_anon_sym_throw, mozjs_anon_sym_case,
      mozjs_anon_sym_yield, mozjs_anon_sym_class, mozjs_anon_sym_async, mozjs_anon_sym_function,
      mozjs_anon_sym_new, mozjs_anon_sym_PLUS, mozjs_anon_sym_DASH, mozjs_anon_sym_SLASH,
      mozjs_anon_sym_typeof, mozjs_anon_sym_void, mozjs_anon_sym_delete, mozjs_sym_identifier,
      mozjs_sym_private_property_identifier, mozjs_sym_this, mozjs_sym_super, mozjs_sym_true,
      mozjs_sym_false, mozjs_sym_null, mozjs_sym_undefined, mozjs_anon_sym_static,
      mozjs_anon_sym_get, mozjs_anon_sym_set]"

definition mozjs_small_run_4262 :: "nat list" where
  "mozjs_small_run_4262 =
    [3, 5, 2, mozjs_sym_html_comment, mozjs_sym_comment, 1303, 17, ts_builtin_sym_end,
      mozjs_anon_sym_LBRACE, mozjs_anon_sym_RBRACE, mozjs_anon_sym_LPAREN, mozjs_anon_sym_SEMI,
      mozjs_anon_sym_LBRACK, mozjs_anon_sym_LT, mozjs_anon_sym_DQUOTE, mozjs_anon_sym_SQUOTE,
      mozjs_anon_sym_BANG, mozjs_anon_sym_TILDE, mozjs_anon_sym_PLUS_PLUS,
      mozjs_anon_sym_DASH_DASH, mozjs_anon_sym_BQUOTE, mozjs_sym_number, mozjs_anon_sym_AT,
      mozjs_sym_preproc, 1305, 44, mozjs_anon_sym_export, mozjs_anon_sym_default,
      mozjs_anon_sym_import, mozjs_anon_sym_with, mozjs_anon_sym_var, mozjs_anon_sym_let,
      mozjs_anon_sym_const, mozjs_anon_sym_using, mozjs_anon_sym_await, mozjs_anon_sym_else,
      mozjs_anon_sym_if, mozjs_anon_sym_switch, mozjs_anon_sym_for, mozjs_anon_sym_while,
      mozjs_anon_sym_do, mozjs_anon_sym_try, mozjs_anon_sym_break, mozjs_anon_sym_continue,
      mozjs_anon_sym_debugger, mozjs_anon_sym_return, mozjs_anon_sym_throw, mozjs_anon_sym_case,
      mozjs_anon_sym_yield, mozjs_anon_sym_class, mozjs_anon_sym_async, mozjs_anon_sym_function,
      mozjs_anon_sym_new, mozjs_anon_sym_PLUS, mozjs_anon_sym_DASH, mozjs_anon_sym_SLASH,
      mozjs_anon_sym_typeof, mozjs_anon_sym_void, mozjs_anon_sym_delete, mozjs_sym_identifier,
      mozjs_sym_private_property_identifier, mozjs_sym_this, mozjs_sym_super, mozjs_sym_true,
      mozjs_sym_false, mozjs_sym_null, mozjs_sym_undefined, mozjs_anon_sym_static,
      mozjs_anon_sym_get, mozjs_anon_sym_set]"

definition mozjs_small_run_4332 :: "nat list" where
  "mozjs_small_run_4332 =
    [3, 5, 2, mozjs_sym_html_comment, mozjs_sym_comment, 1307, 17, ts_builtin_sym_end,
      mozjs_anon_sym_LBRACE, mozjs_anon_sym_RBRACE, mozjs_anon_sym_LPAREN, mozjs_anon_sym_SEMI,
      mozjs_anon_sym_LBRACK, mozjs_anon_sym_LT, mozjs_anon_sym_DQUOTE, mozjs_anon_sym_SQUOTE,
      mozjs_anon_sym_BANG, mozjs_anon_sym_TILDE, mozjs_anon_sym_PLUS_PLUS,
      mozjs_anon_sym_DASH_DASH, mozjs_anon_sym_BQUOTE, mozjs_sym_number, mozjs_anon_sym_AT,
      mozjs_sym_preproc, 1309, 44, mozjs_anon_sym_export, mozjs_anon_sym_default,
      mozjs_anon_sym_import, mozjs_anon_sym_with, mozjs_anon_sym_var, mozjs_anon_sym_let,
      mozjs_anon_sym_const, mozjs_anon_sym_using, mozjs_anon_sym_await, mozjs_anon_sym_else,
      mozjs_anon_sym_if, mozjs_anon_sym_switch, mozjs_anon_sym_for, mozjs_anon_sym_while,
      mozjs_anon_sym_do, mozjs_anon_sym_try, mozjs_anon_sym_break, mozjs_anon_sym_continue,
      mozjs_anon_sym_debugger, mozjs_anon_sym_return, mozjs_anon_sym_throw, mozjs_anon_sym_case,
      mozjs_anon_sym_yield, mozjs_anon_sym_class, mozjs_anon_sym_async, mozjs_anon_sym_function,
      mozjs_anon_sym_new, mozjs_anon_sym_PLUS, mozjs_anon_sym_DASH, mozjs_anon_sym_SLASH,
      mozjs_anon_sym_typeof, mozjs_anon_sym_void, mozjs_anon_sym_delete, mozjs_sym_identifier,
      mozjs_sym_private_property_identifier, mozjs_sym_this, mozjs_sym_super, mozjs_sym_true,
      mozjs_sym_false, mozjs_sym_null, mozjs_sym_undefined, mozjs_anon_sym_static,
      mozjs_anon_sym_get, mozjs_anon_sym_set]"

definition mozjs_small_run_4402 :: "nat list" where
  "mozjs_small_run_4402 =
    [3, 5, 2, mozjs_sym_html_comment, mozjs_sym_comment, 1311, 17, ts_builtin_sym_end,
      mozjs_anon_sym_LBRACE, mozjs_anon_sym_RBRACE, mozjs_anon_sym_LPAREN, mozjs_anon_sym_SEMI,
      mozjs_anon_sym_LBRACK, mozjs_anon_sym_LT, mozjs_anon_sym_DQUOTE, mozjs_anon_sym_SQUOTE,
      mozjs_anon_sym_BANG, mozjs_anon_sym_TILDE, mozjs_anon_sym_PLUS_PLUS,
      mozjs_anon_sym_DASH_DASH, mozjs_anon_sym_BQUOTE, mozjs_sym_number, mozjs_anon_sym_AT,
      mozjs_sym_preproc, 1313, 44, mozjs_anon_sym_export, mozjs_anon_sym_default,
      mozjs_anon_sym_import, mozjs_anon_sym_with, mozjs_anon_sym_var, mozjs_anon_sym_let,
      mozjs_anon_sym_const, mozjs_anon_sym_using, mozjs_anon_sym_await, mozjs_anon_sym_else,
      mozjs_anon_sym_if, mozjs_anon_sym_switch, mozjs_anon_sym_for, mozjs_anon_sym_while,
      mozjs_anon_sym_do, mozjs_anon_sym_try, mozjs_anon_sym_break, mozjs_anon_sym_continue,
      mozjs_anon_sym_debugger, mozjs_anon_sym_return, mozjs_anon_sym_throw, mozjs_anon_sym_case,
      mozjs_anon_sym_yield, mozjs_anon_sym_class, mozjs_anon_sym_async, mozjs_anon_sym_function,
      mozjs_anon_sym_new, mozjs_anon_sym_PLUS, mozjs_anon_sym_DASH, mozjs_anon_sym_SLASH,
      mozjs_anon_sym_typeof, mozjs_anon_sym_void, mozjs_anon_sym_delete, mozjs_sym_identifier,
      mozjs_sym_private_property_identifier, mozjs_sym_this, mozjs_sym_super, mozjs_sym_true,
      mozjs_sym_false, mozjs_sym_null, mozjs_sym_undefined, mozjs_anon_sym_static,
      mozjs_anon_sym_get, mozjs_anon_sym_set]"

definition mozjs_small_run_4472 :: "nat list" where
  "mozjs_small_run_4472 =
    [3, 5, 2, mozjs_sym_html_comment, mozjs_sym_comment, 1315, 17, ts_builtin_sym_end,
      mozjs_anon_sym_LBRACE, mozjs_anon_sym_RBRACE, mozjs_anon_sym_LPAREN, mozjs_anon_sym_SEMI,
      mozjs_anon_sym_LBRACK, mozjs_anon_sym_LT, mozjs_anon_sym_DQUOTE, mozjs_anon_sym_SQUOTE,
      mozjs_anon_sym_BANG, mozjs_anon_sym_TILDE, mozjs_anon_sym_PLUS_PLUS,
      mozjs_anon_sym_DASH_DASH, mozjs_anon_sym_BQUOTE, mozjs_sym_number, mozjs_anon_sym_AT,
      mozjs_sym_preproc, 1317, 44, mozjs_anon_sym_export, mozjs_anon_sym_default,
      mozjs_anon_sym_import, mozjs_anon_sym_with, mozjs_anon_sym_var, mozjs_anon_sym_let,
      mozjs_anon_sym_const, mozjs_anon_sym_using, mozjs_anon_sym_await, mozjs_anon_sym_else,
      mozjs_anon_sym_if, mozjs_anon_sym_switch, mozjs_anon_sym_for, mozjs_anon_sym_while,
      mozjs_anon_sym_do, mozjs_anon_sym_try, mozjs_anon_sym_break, mozjs_anon_sym_continue,
      mozjs_anon_sym_debugger, mozjs_anon_sym_return, mozjs_anon_sym_throw, mozjs_anon_sym_case,
      mozjs_anon_sym_yield, mozjs_anon_sym_class, mozjs_anon_sym_async, mozjs_anon_sym_function,
      mozjs_anon_sym_new, mozjs_anon_sym_PLUS, mozjs_anon_sym_DASH, mozjs_anon_sym_SLASH,
      mozjs_anon_sym_typeof, mozjs_anon_sym_void, mozjs_anon_sym_delete, mozjs_sym_identifier,
      mozjs_sym_private_property_identifier, mozjs_sym_this, mozjs_sym_super, mozjs_sym_true,
      mozjs_sym_false, mozjs_sym_null, mozjs_sym_undefined, mozjs_anon_sym_static,
      mozjs_anon_sym_get, mozjs_anon_sym_set]"

definition mozjs_small_run_4542 :: "nat list" where
  "mozjs_small_run_4542 =
    [3, 5, 2, mozjs_sym_html_comment, mozjs_sym_comment, 1319, 17, ts_builtin_sym_end,
      mozjs_anon_sym_LBRACE, mozjs_anon_sym_RBRACE, mozjs_anon_sym_LPAREN, mozjs_anon_sym_SEMI,
      mozjs_anon_sym_LBRACK, mozjs_anon_sym_LT, mozjs_anon_sym_DQUOTE, mozjs_anon_sym_SQUOTE,
      mozjs_anon_sym_BANG, mozjs_anon_sym_TILDE, mozjs_anon_sym_PLUS_PLUS,
      mozjs_anon_sym_DASH_DASH, mozjs_anon_sym_BQUOTE, mozjs_sym_number, mozjs_anon_sym_AT,
      mozjs_sym_preproc, 1321, 44, mozjs_anon_sym_export, mozjs_anon_sym_default,
      mozjs_anon_sym_import, mozjs_anon_sym_with, mozjs_anon_sym_var, mozjs_anon_sym_let,
      mozjs_anon_sym_const, mozjs_anon_sym_using, mozjs_anon_sym_await, mozjs_anon_sym_else,
      mozjs_anon_sym_if, mozjs_anon_sym_switch, mozjs_anon_sym_for, mozjs_anon_sym_while,
      mozjs_anon_sym_do, mozjs_anon_sym_try, mozjs_anon_sym_break, mozjs_anon_sym_continue,
      mozjs_anon_sym_debugger, mozjs_anon_sym_return, mozjs_anon_sym_throw, mozjs_anon_sym_case,
      mozjs_anon_sym_yield, mozjs_anon_sym_class, mozjs_anon_sym_async, mozjs_anon_sym_function,
      mozjs_anon_sym_new, mozjs_anon_sym_PLUS, mozjs_anon_sym_DASH, mozjs_anon_sym_SLASH,
      mozjs_anon_sym_typeof, mozjs_anon_sym_void, mozjs_anon_sym_delete, mozjs_sym_identifier,
      mozjs_sym_private_property_identifier, mozjs_sym_this, mozjs_sym_super, mozjs_sym_true,
      mozjs_sym_false, mozjs_sym_null, mozjs_sym_undefined, mozjs_anon_sym_static,
      mozjs_anon_sym_get, mozjs_anon_sym_set]"

definition mozjs_small_run_4612 :: "nat list" where
  "mozjs_small_run_4612 =
    [3, 5, 2, mozjs_sym_html_comment, mozjs_sym_comment, 1323, 17, ts_builtin_sym_end,
      mozjs_anon_sym_LBRACE, mozjs_anon_sym_RBRACE, mozjs_anon_sym_LPAREN, mozjs_anon_sym_SEMI,
      mozjs_anon_sym_LBRACK, mozjs_anon_sym_LT, mozjs_anon_sym_DQUOTE, mozjs_anon_sym_SQUOTE,
      mozjs_anon_sym_BANG, mozjs_anon_sym_TILDE, mozjs_anon_sym_PLUS_PLUS,
      mozjs_anon_sym_DASH_DASH, mozjs_anon_sym_BQUOTE, mozjs_sym_number, mozjs_anon_sym_AT,
      mozjs_sym_preproc, 1325, 44, mozjs_anon_sym_export, mozjs_anon_sym_default,
      mozjs_anon_sym_import, mozjs_anon_sym_with, mozjs_anon_sym_var, mozjs_anon_sym_let,
      mozjs_anon_sym_const, mozjs_anon_sym_using, mozjs_anon_sym_await, mozjs_anon_sym_else,
      mozjs_anon_sym_if, mozjs_anon_sym_switch, mozjs_anon_sym_for, mozjs_anon_sym_while,
      mozjs_anon_sym_do, mozjs_anon_sym_try, mozjs_anon_sym_break, mozjs_anon_sym_continue,
      mozjs_anon_sym_debugger, mozjs_anon_sym_return, mozjs_anon_sym_throw, mozjs_anon_sym_case,
      mozjs_anon_sym_yield, mozjs_anon_sym_class, mozjs_anon_sym_async, mozjs_anon_sym_function,
      mozjs_anon_sym_new, mozjs_anon_sym_PLUS, mozjs_anon_sym_DASH, mozjs_anon_sym_SLASH,
      mozjs_anon_sym_typeof, mozjs_anon_sym_void, mozjs_anon_sym_delete, mozjs_sym_identifier,
      mozjs_sym_private_property_identifier, mozjs_sym_this, mozjs_sym_super, mozjs_sym_true,
      mozjs_sym_false, mozjs_sym_null, mozjs_sym_undefined, mozjs_anon_sym_static,
      mozjs_anon_sym_get, mozjs_anon_sym_set]"

definition mozjs_small_run_4682 :: "nat list" where
  "mozjs_small_run_4682 =
    [13, 342, 1, mozjs_anon_sym_EQ_GT, 499, 1, mozjs_anon_sym_EQ, 501, 1, mozjs_anon_sym_COLON,
      1119, 1, mozjs_sym_identifier, 1121, 1, mozjs_anon_sym_LBRACE, 1123, 1, mozjs_anon_sym_of,
      1125, 1, mozjs_anon_sym_LBRACK, 1337, 1, mozjs_sym_variable_declarator, 5, 2,
      mozjs_sym_html_comment, mozjs_sym_comment, 1283, 3, mozjs_sym_object_pattern,
      mozjs_sym_array_pattern, mozjs_sym__destructuring_pattern, 311, 14,
      mozjs_sym__automatic_semicolon, mozjs_sym__ternary_qmark, mozjs_anon_sym_COMMA,
      mozjs_anon_sym_LPAREN, mozjs_anon_sym_SEMI, mozjs_anon_sym_DOT, mozjs_sym_optional_chain,
      mozjs_anon_sym_LT_EQ, mozjs_anon_sym_EQ_EQ_EQ, mozjs_anon_sym_BANG_EQ_EQ,
      mozjs_anon_sym_GT_EQ, mozjs_anon_sym_PLUS_PLUS, mozjs_anon_sym_DASH_DASH,
      mozjs_anon_sym_BQUOTE, 344, 15, mozjs_anon_sym_PLUS_EQ, mozjs_anon_sym_DASH_EQ,
      mozjs_anon_sym_STAR_EQ, mozjs_anon_sym_SLASH_EQ, mozjs_anon_sym_PERCENT_EQ,
      mozjs_anon_sym_CARET_EQ, mozjs_anon_sym_AMP_EQ, mozjs_anon_sym_PIPE_EQ,
      mozjs_anon_sym_GT_GT_EQ, mozjs_anon_sym_GT_GT_GT_EQ, mozjs_anon_sym_LT_LT_EQ,
      mozjs_anon_sym_STAR_STAR_EQ, mozjs_anon_sym_AMP_AMP_EQ, mozjs_anon_sym_PIPE_PIPE_EQ,
      mozjs_anon_sym_QMARK_QMARK_EQ, 307, 21, mozjs_anon_sym_STAR, mozjs_anon_sym_in,
      mozjs_anon_sym_LT, mozjs_anon_sym_GT, mozjs_anon_sym_AMP_AMP, mozjs_anon_sym_PIPE_PIPE,
      mozjs_anon_sym_GT_GT, mozjs_anon_sym_GT_GT_GT, mozjs_anon_sym_LT_LT, mozjs_anon_sym_AMP,
      mozjs_anon_sym_CARET, mozjs_anon_sym_PIPE, mozjs_anon_sym_PLUS, mozjs_anon_sym_DASH,
      mozjs_anon_sym_SLASH, mozjs_anon_sym_PERCENT, mozjs_anon_sym_STAR_STAR,
      mozjs_anon_sym_EQ_EQ, mozjs_anon_sym_BANG_EQ, mozjs_anon_sym_QMARK_QMARK,
      mozjs_anon_sym_instanceof]"

definition mozjs_small_run_4772 :: "nat list" where
  "mozjs_small_run_4772 =
    [3, 5, 2, mozjs_sym_html_comment, mozjs_sym_comment, 1327, 17, ts_builtin_sym_end,
      mozjs_anon_sym_LBRACE, mozjs_anon_sym_RBRACE, mozjs_anon_sym_LPAREN, mozjs_anon_sym_SEMI,
      mozjs_anon_sym_LBRACK, mozjs_anon_sym_LT, mozjs_anon_sym_DQUOTE, mozjs_anon_sym_SQUOTE,
      mozjs_anon_sym_BANG, mozjs_anon_sym_TILDE, mozjs_anon_sym_PLUS_PLUS,
      mozjs_anon_sym_DASH_DASH, mozjs_anon_sym_BQUOTE, mozjs_sym_number, mozjs_anon_sym_AT,
      mozjs_sym_preproc, 1329, 44, mozjs_anon_sym_export, mozjs_anon_sym_default,
      mozjs_anon_sym_import, mozjs_anon_sym_with, mozjs_anon_sym_var, mozjs_anon_sym_let,
      mozjs_anon_sym_const, mozjs_anon_sym_using, mozjs_anon_sym_await, mozjs_anon_sym_else,
      mozjs_anon_sym_if, mozjs_anon_sym_switch, mozjs_anon_sym_for, mozjs_anon_sym_while,
      mozjs_anon_sym_do, mozjs_anon_sym_try, mozjs_anon_sym_break, mozjs_anon_sym_continue,
      mozjs_anon_sym_debugger, mozjs_anon_sym_return, mozjs_anon_sym_throw, mozjs_anon_sym_case,
      mozjs_anon_sym_yield, mozjs_anon_sym_class, mozjs_anon_sym_async, mozjs_anon_sym_function,
      mozjs_anon_sym_new, mozjs_anon_sym_PLUS, mozjs_anon_sym_DASH, mozjs_anon_sym_SLASH,
      mozjs_anon_sym_typeof, mozjs_anon_sym_void, mozjs_anon_sym_delete, mozjs_sym_identifier,
      mozjs_sym_private_property_identifier, mozjs_sym_this, mozjs_sym_super, mozjs_sym_true,
      mozjs_sym_false, mozjs_sym_null, mozjs_sym_undefined, mozjs_anon_sym_static,
      mozjs_anon_sym_get, mozjs_anon_sym_set]"

definition mozjs_small_run_4842 :: "nat list" where
  "mozjs_small_run_4842 =
    [3, 5, 2, mozjs_sym_html_comment, mozjs_sym_comment, 1331, 17, ts_builtin_sym_end,
      mozjs_anon_sym_LBRACE, mozjs_anon_sym_RBRACE, mozjs_anon_sym_LPAREN, mozjs_anon_sym_SEMI,
      mozjs_anon_sym_LBRACK, mozjs_anon_sym_LT, mozjs_anon_sym_DQUOTE, mozjs_anon_sym_SQUOTE,
      mozjs_anon_sym_BANG, mozjs_anon_sym_TILDE, mozjs_anon_sym_PLUS_PLUS,
      mozjs_anon_sym_DASH_DASH, mozjs_anon_sym_BQUOTE, mozjs_sym_number, mozjs_anon_sym_AT,
      mozjs_sym_preproc, 1333, 44, mozjs_anon_sym_export, mozjs_anon_sym_default,
      mozjs_anon_sym_import, mozjs_anon_sym_with, mozjs_anon_sym_var, mozjs_anon_sym_let,
      mozjs_anon_sym_const, mozjs_anon_sym_using, mozjs_anon_sym_await, mozjs_anon_sym_else,
      mozjs_anon_sym_if, mozjs_anon_sym_switch, mozjs_anon_sym_for, mozjs_anon_sym_while,
      mozjs_anon_sym_do, mozjs_anon_sym_try, mozjs_anon_sym_break, mozjs_anon_sym_continue,
      mozjs_anon_sym_debugger, mozjs_anon_sym_return, mozjs_anon_sym_throw, mozjs_anon_sym_case,
      mozjs_anon_sym_yield, mozjs_anon_sym_class, mozjs_anon_sym_async, mozjs_anon_sym_function,
      mozjs_anon_sym_new, mozjs_anon_sym_PLUS, mozjs_anon_sym_DASH, mozjs_anon_sym_SLASH,
      mozjs_anon_sym_typeof, mozjs_anon_sym_void, mozjs_anon_sym_delete, mozjs_sym_identifier,
      mozjs_sym_private_property_identifier, mozjs_sym_this, mozjs_sym_super, mozjs_sym_true,
      mozjs_sym_false, mozjs_sym_null, mozjs_sym_undefined, mozjs_anon_sym_static,
      mozjs_anon_sym_get, mozjs_anon_sym_set]"

definition mozjs_small_run_4912 :: "nat list" where
  "mozjs_small_run_4912 =
    [3, 5, 2, mozjs_sym_html_comment, mozjs_sym_comment, 1335, 17, ts_builtin_sym_end,
      mozjs_anon_sym_LBRACE, mozjs_anon_sym_RBRACE, mozjs_anon_sym_LPAREN, mozjs_anon_sym_SEMI,
      mozjs_anon_sym_LBRACK, mozjs_anon_sym_LT, mozjs_anon_sym_DQUOTE, mozjs_anon_sym_SQUOTE,
      mozjs_anon_sym_BANG, mozjs_anon_sym_TILDE, mozjs_anon_sym_PLUS_PLUS,
      mozjs_anon_sym_DASH_DASH, mozjs_anon_sym_BQUOTE, mozjs_sym_number, mozjs_anon_sym_AT,
      mozjs_sym_preproc, 1337, 44, mozjs_anon_sym_export, mozjs_anon_sym_default,
      mozjs_anon_sym_import, mozjs_anon_sym_with, mozjs_anon_sym_var, mozjs_anon_sym_let,
      mozjs_anon_sym_const, mozjs_anon_sym_using, mozjs_anon_sym_await, mozjs_anon_sym_else,
      mozjs_anon_sym_if, mozjs_anon_sym_switch, mozjs_anon_sym_for, mozjs_anon_sym_while,
      mozjs_anon_sym_do, mozjs_anon_sym_try, mozjs_anon_sym_break, mozjs_anon_sym_continue,
      mozjs_anon_sym_debugger, mozjs_anon_sym_return, mozjs_anon_sym_throw, mozjs_anon_sym_case,
      mozjs_anon_sym_yield, mozjs_anon_sym_class, mozjs_anon_sym_async, mozjs_anon_sym_function,
      mozjs_anon_sym_new, mozjs_anon_sym_PLUS, mozjs_anon_sym_DASH, mozjs_anon_sym_SLASH,
      mozjs_anon_sym_typeof, mozjs_anon_sym_void, mozjs_anon_sym_delete, mozjs_sym_identifier,
      mozjs_sym_private_property_identifier, mozjs_sym_this, mozjs_sym_super, mozjs_sym_true,
      mozjs_sym_false, mozjs_sym_null, mozjs_sym_undefined, mozjs_anon_sym_static,
      mozjs_anon_sym_get, mozjs_anon_sym_set]"

definition mozjs_small_run_4982 :: "nat list" where
  "mozjs_small_run_4982 =
    [3, 5, 2, mozjs_sym_html_comment, mozjs_sym_comment, 1339, 17, ts_builtin_sym_end,
      mozjs_anon_sym_LBRACE, mozjs_anon_sym_RBRACE, mozjs_anon_sym_LPAREN, mozjs_anon_sym_SEMI,
      mozjs_anon_sym_LBRACK, mozjs_anon_sym_LT, mozjs_anon_sym_DQUOTE, mozjs_anon_sym_SQUOTE,
      mozjs_anon_sym_BANG, mozjs_anon_sym_TILDE, mozjs_anon_sym_PLUS_PLUS,
      mozjs_anon_sym_DASH_DASH, mozjs_anon_sym_BQUOTE, mozjs_sym_number, mozjs_anon_sym_AT,
      mozjs_sym_preproc, 1341, 44, mozjs_anon_sym_export, mozjs_anon_sym_default,
      mozjs_anon_sym_import, mozjs_anon_sym_with, mozjs_anon_sym_var, mozjs_anon_sym_let,
      mozjs_anon_sym_const, mozjs_anon_sym_using, mozjs_anon_sym_await, mozjs_anon_sym_else,
      mozjs_anon_sym_if, mozjs_anon_sym_switch, mozjs_anon_sym_for, mozjs_anon_sym_while,
      mozjs_anon_sym_do, mozjs_anon_sym_try, mozjs_anon_sym_break, mozjs_anon_sym_continue,
      mozjs_anon_sym_debugger, mozjs_anon_sym_return, mozjs_anon_sym_throw, mozjs_anon_sym_case,
      mozjs_anon_sym_yield, mozjs_anon_sym_class, mozjs_anon_sym_async, mozjs_anon_sym_function,
      mozjs_anon_sym_new, mozjs_anon_sym_PLUS, mozjs_anon_sym_DASH, mozjs_anon_sym_SLASH,
      mozjs_anon_sym_typeof, mozjs_anon_sym_void, mozjs_anon_sym_delete, mozjs_sym_identifier,
      mozjs_sym_private_property_identifier, mozjs_sym_this, mozjs_sym_super, mozjs_sym_true,
      mozjs_sym_false, mozjs_sym_null, mozjs_sym_undefined, mozjs_anon_sym_static,
      mozjs_anon_sym_get, mozjs_anon_sym_set]"

definition mozjs_small_run_5052 :: "nat list" where
  "mozjs_small_run_5052 =
    [13, 342, 1, mozjs_anon_sym_EQ_GT, 497, 1, mozjs_anon_sym_COLON, 499, 1, mozjs_anon_sym_EQ,
      1119, 1, mozjs_sym_identifier, 1121, 1, mozjs_anon_sym_LBRACE, 1123, 1, mozjs_anon_sym_of,
      1125, 1, mozjs_anon_sym_LBRACK, 1337, 1, mozjs_sym_variable_declarator, 5, 2,
      mozjs_sym_html_comment, mozjs_sym_comment, 1283, 3, mozjs_sym_object_pattern,
      mozjs_sym_array_pattern, mozjs_sym__destructuring_pattern, 311, 14,
      mozjs_sym__automatic_semicolon, mozjs_sym__ternary_qmark, mozjs_anon_sym_COMMA,
      mozjs_anon_sym_LPAREN, mozjs_anon_sym_SEMI, mozjs_anon_sym_DOT, mozjs_sym_optional_chain,
      mozjs_anon_sym_LT_EQ, mozjs_anon_sym_EQ_EQ_EQ, mozjs_anon_sym_BANG_EQ_EQ,
      mozjs_anon_sym_GT_EQ, mozjs_anon_sym_PLUS_PLUS, mozjs_anon_sym_DASH_DASH,
      mozjs_anon_sym_BQUOTE, 344, 15, mozjs_anon_sym_PLUS_EQ, mozjs_anon_sym_DASH_EQ,
      mozjs_anon_sym_STAR_EQ, mozjs_anon_sym_SLASH_EQ, mozjs_anon_sym_PERCENT_EQ,
      mozjs_anon_sym_CARET_EQ, mozjs_anon_sym_AMP_EQ, mozjs_anon_sym_PIPE_EQ,
      mozjs_anon_sym_GT_GT_EQ, mozjs_anon_sym_GT_GT_GT_EQ, mozjs_anon_sym_LT_LT_EQ,
      mozjs_anon_sym_STAR_STAR_EQ, mozjs_anon_sym_AMP_AMP_EQ, mozjs_anon_sym_PIPE_PIPE_EQ,
      mozjs_anon_sym_QMARK_QMARK_EQ, 307, 21, mozjs_anon_sym_STAR, mozjs_anon_sym_in,
      mozjs_anon_sym_LT, mozjs_anon_sym_GT, mozjs_anon_sym_AMP_AMP, mozjs_anon_sym_PIPE_PIPE,
      mozjs_anon_sym_GT_GT, mozjs_anon_sym_GT_GT_GT, mozjs_anon_sym_LT_LT, mozjs_anon_sym_AMP,
      mozjs_anon_sym_CARET, mozjs_anon_sym_PIPE, mozjs_anon_sym_PLUS, mozjs_anon_sym_DASH,
      mozjs_anon_sym_SLASH, mozjs_anon_sym_PERCENT, mozjs_anon_sym_STAR_STAR,
      mozjs_anon_sym_EQ_EQ, mozjs_anon_sym_BANG_EQ, mozjs_anon_sym_QMARK_QMARK,
      mozjs_anon_sym_instanceof]"

definition mozjs_small_run_5142 :: "nat list" where
  "mozjs_small_run_5142 =
    [3, 5, 2, mozjs_sym_html_comment, mozjs_sym_comment, 1343, 17, ts_builtin_sym_end,
      mozjs_anon_sym_LBRACE, mozjs_anon_sym_RBRACE, mozjs_anon_sym_LPAREN, mozjs_anon_sym_SEMI,
      mozjs_anon_sym_LBRACK, mozjs_anon_sym_LT, mozjs_anon_sym_DQUOTE, mozjs_anon_sym_SQUOTE,
      mozjs_anon_sym_BANG, mozjs_anon_sym_TILDE, mozjs_anon_sym_PLUS_PLUS,
      mozjs_anon_sym_DASH_DASH, mozjs_anon_sym_BQUOTE, mozjs_sym_number, mozjs_anon_sym_AT,
      mozjs_sym_preproc, 1345, 44, mozjs_anon_sym_export, mozjs_anon_sym_default,
      mozjs_anon_sym_import, mozjs_anon_sym_with, mozjs_anon_sym_var, mozjs_anon_sym_let,
      mozjs_anon_sym_const, mozjs_anon_sym_using, mozjs_anon_sym_await, mozjs_anon_sym_else,
      mozjs_anon_sym_if, mozjs_anon_sym_switch, mozjs_anon_sym_for, mozjs_anon_sym_while,
      mozjs_anon_sym_do, mozjs_anon_sym_try, mozjs_anon_sym_break, mozjs_anon_sym_continue,
      mozjs_anon_sym_debugger, mozjs_anon_sym_return, mozjs_anon_sym_throw, mozjs_anon_sym_case,
      mozjs_anon_sym_yield, mozjs_anon_sym_class, mozjs_anon_sym_async, mozjs_anon_sym_function,
      mozjs_anon_sym_new, mozjs_anon_sym_PLUS, mozjs_anon_sym_DASH, mozjs_anon_sym_SLASH,
      mozjs_anon_sym_typeof, mozjs_anon_sym_void, mozjs_anon_sym_delete, mozjs_sym_identifier,
      mozjs_sym_private_property_identifier, mozjs_sym_this, mozjs_sym_super, mozjs_sym_true,
      mozjs_sym_false, mozjs_sym_null, mozjs_sym_undefined, mozjs_anon_sym_static,
      mozjs_anon_sym_get, mozjs_anon_sym_set]"

definition mozjs_small_run_5212 :: "nat list" where
  "mozjs_small_run_5212 =
    [3, 5, 2, mozjs_sym_html_comment, mozjs_sym_comment, 1343, 17, ts_builtin_sym_end,
      mozjs_anon_sym_LBRACE, mozjs_anon_sym_RBRACE, mozjs_anon_sym_LPAREN, mozjs_anon_sym_SEMI,
      mozjs_anon_sym_LBRACK, mozjs_anon_sym_LT, mozjs_anon_sym_DQUOTE, mozjs_anon_sym_SQUOTE,
      mozjs_anon_sym_BANG, mozjs_anon_sym_TILDE, mozjs_anon_sym_PLUS_PLUS,
      mozjs_anon_sym_DASH_DASH, mozjs_anon_sym_BQUOTE, mozjs_sym_number, mozjs_anon_sym_AT,
      mozjs_sym_preproc, 1345, 44, mozjs_anon_sym_export, mozjs_anon_sym_default,
      mozjs_anon_sym_import, mozjs_anon_sym_with, mozjs_anon_sym_var, mozjs_anon_sym_let,
      mozjs_anon_sym_const, mozjs_anon_sym_using, mozjs_anon_sym_await, mozjs_anon_sym_else,
      mozjs_anon_sym_if, mozjs_anon_sym_switch, mozjs_anon_sym_for, mozjs_anon_sym_while,
      mozjs_anon_sym_do, mozjs_anon_sym_try, mozjs_anon_sym_break, mozjs_anon_sym_continue,
      mozjs_anon_sym_debugger, mozjs_anon_sym_return, mozjs_anon_sym_throw, mozjs_anon_sym_case,
      mozjs_anon_sym_yield, mozjs_anon_sym_class, mozjs_anon_sym_async, mozjs_anon_sym_function,
      mozjs_anon_sym_new, mozjs_anon_sym_PLUS, mozjs_anon_sym_DASH, mozjs_anon_sym_SLASH,
      mozjs_anon_sym_typeof, mozjs_anon_sym_void, mozjs_anon_sym_delete, mozjs_sym_identifier,
      mozjs_sym_private_property_identifier, mozjs_sym_this, mozjs_sym_super, mozjs_sym_true,
      mozjs_sym_false, mozjs_sym_null, mozjs_sym_undefined, mozjs_anon_sym_static,
      mozjs_anon_sym_get, mozjs_anon_sym_set]"

definition mozjs_small_run_5282 :: "nat list" where
  "mozjs_small_run_5282 =
    [3, 5, 2, mozjs_sym_html_comment, mozjs_sym_comment, 1347, 17, ts_builtin_sym_end,
      mozjs_anon_sym_LBRACE, mozjs_anon_sym_RBRACE, mozjs_anon_sym_LPAREN, mozjs_anon_sym_SEMI,
      mozjs_anon_sym_LBRACK, mozjs_anon_sym_LT, mozjs_anon_sym_DQUOTE, mozjs_anon_sym_SQUOTE,
      mozjs_anon_sym_BANG, mozjs_anon_sym_TILDE, mozjs_anon_sym_PLUS_PLUS,
      mozjs_anon_sym_DASH_DASH, mozjs_anon_sym_BQUOTE, mozjs_sym_number, mozjs_anon_sym_AT,
      mozjs_sym_preproc, 1349, 44, mozjs_anon_sym_export, mozjs_anon_sym_default,
      mozjs_anon_sym_import, mozjs_anon_sym_with, mozjs_anon_sym_var, mozjs_anon_sym_let,
      mozjs_anon_sym_const, mozjs_anon_sym_using, mozjs_anon_sym_await, mozjs_anon_sym_else,
      mozjs_anon_sym_if, mozjs_anon_sym_switch, mozjs_anon_sym_for, mozjs_anon_sym_while,
      mozjs_anon_sym_do, mozjs_anon_sym_try, mozjs_anon_sym_break, mozjs_anon_sym_continue,
      mozjs_anon_sym_debugger, mozjs_anon_sym_return, mozjs_anon_sym_throw, mozjs_anon_sym_case,
      mozjs_anon_sym_yield, mozjs_anon_sym_class, mozjs_anon_sym_async, mozjs_anon_sym_function,
      mozjs_anon_sym_new, mozjs_anon_sym_PLUS, mozjs_anon_sym_DASH, mozjs_anon_sym_SLASH,
      mozjs_anon_sym_typeof, mozjs_anon_sym_void, mozjs_anon_sym_delete, mozjs_sym_identifier,
      mozjs_sym_private_property_identifier, mozjs_sym_this, mozjs_sym_super, mozjs_sym_true,
      mozjs_sym_false, mozjs_sym_null, mozjs_sym_undefined, mozjs_anon_sym_static,
      mozjs_anon_sym_get, mozjs_anon_sym_set]"

definition mozjs_small_run_5352 :: "nat list" where
  "mozjs_small_run_5352 =
    [3, 5, 2, mozjs_sym_html_comment, mozjs_sym_comment, 1351, 17, ts_builtin_sym_end,
      mozjs_anon_sym_LBRACE, mozjs_anon_sym_RBRACE, mozjs_anon_sym_LPAREN, mozjs_anon_sym_SEMI,
      mozjs_anon_sym_LBRACK, mozjs_anon_sym_LT, mozjs_anon_sym_DQUOTE, mozjs_anon_sym_SQUOTE,
      mozjs_anon_sym_BANG, mozjs_anon_sym_TILDE, mozjs_anon_sym_PLUS_PLUS,
      mozjs_anon_sym_DASH_DASH, mozjs_anon_sym_BQUOTE, mozjs_sym_number, mozjs_anon_sym_AT,
      mozjs_sym_preproc, 1353, 44, mozjs_anon_sym_export, mozjs_anon_sym_default,
      mozjs_anon_sym_import, mozjs_anon_sym_with, mozjs_anon_sym_var, mozjs_anon_sym_let,
      mozjs_anon_sym_const, mozjs_anon_sym_using, mozjs_anon_sym_await, mozjs_anon_sym_else,
      mozjs_anon_sym_if, mozjs_anon_sym_switch, mozjs_anon_sym_for, mozjs_anon_sym_while,
      mozjs_anon_sym_do, mozjs_anon_sym_try, mozjs_anon_sym_break, mozjs_anon_sym_continue,
      mozjs_anon_sym_debugger, mozjs_anon_sym_return, mozjs_anon_sym_throw, mozjs_anon_sym_case,
      mozjs_anon_sym_yield, mozjs_anon_sym_class, mozjs_anon_sym_async, mozjs_anon_sym_function,
      mozjs_anon_sym_new, mozjs_anon_sym_PLUS, mozjs_anon_sym_DASH, mozjs_anon_sym_SLASH,
      mozjs_anon_sym_typeof, mozjs_anon_sym_void, mozjs_anon_sym_delete, mozjs_sym_identifier,
      mozjs_sym_private_property_identifier, mozjs_sym_this, mozjs_sym_super, mozjs_sym_true,
      mozjs_sym_false, mozjs_sym_null, mozjs_sym_undefined, mozjs_anon_sym_static,
      mozjs_anon_sym_get, mozjs_anon_sym_set]"

definition mozjs_small_run_5422 :: "nat list" where
  "mozjs_small_run_5422 =
    [3, 5, 2, mozjs_sym_html_comment, mozjs_sym_comment, 1355, 17, ts_builtin_sym_end,
      mozjs_anon_sym_LBRACE, mozjs_anon_sym_RBRACE, mozjs_anon_sym_LPAREN, mozjs_anon_sym_SEMI,
      mozjs_anon_sym_LBRACK, mozjs_anon_sym_LT, mozjs_anon_sym_DQUOTE, mozjs_anon_sym_SQUOTE,
      mozjs_anon_sym_BANG, mozjs_anon_sym_TILDE, mozjs_anon_sym_PLUS_PLUS,
      mozjs_anon_sym_DASH_DASH, mozjs_anon_sym_BQUOTE, mozjs_sym_number, mozjs_anon_sym_AT,
      mozjs_sym_preproc, 1357, 44, mozjs_anon_sym_export, mozjs_anon_sym_default,
      mozjs_anon_sym_import, mozjs_anon_sym_with, mozjs_anon_sym_var, mozjs_anon_sym_let,
      mozjs_anon_sym_const, mozjs_anon_sym_using, mozjs_anon_sym_await, mozjs_anon_sym_else,
      mozjs_anon_sym_if, mozjs_anon_sym_switch, mozjs_anon_sym_for, mozjs_anon_sym_while,
      mozjs_anon_sym_do, mozjs_anon_sym_try, mozjs_anon_sym_break, mozjs_anon_sym_continue,
      mozjs_anon_sym_debugger, mozjs_anon_sym_return, mozjs_anon_sym_throw, mozjs_anon_sym_case,
      mozjs_anon_sym_yield, mozjs_anon_sym_class, mozjs_anon_sym_async, mozjs_anon_sym_function,
      mozjs_anon_sym_new, mozjs_anon_sym_PLUS, mozjs_anon_sym_DASH, mozjs_anon_sym_SLASH,
      mozjs_anon_sym_typeof, mozjs_anon_sym_void, mozjs_anon_sym_delete, mozjs_sym_identifier,
      mozjs_sym_private_property_identifier, mozjs_sym_this, mozjs_sym_super, mozjs_sym_true,
      mozjs_sym_false, mozjs_sym_null, mozjs_sym_undefined, mozjs_anon_sym_static,
      mozjs_anon_sym_get, mozjs_anon_sym_set]"

definition mozjs_small_run_5492 :: "nat list" where
  "mozjs_small_run_5492 =
    [3, 5, 2, mozjs_sym_html_comment, mozjs_sym_comment, 1359, 17, ts_builtin_sym_end,
      mozjs_anon_sym_LBRACE, mozjs_anon_sym_RBRACE, mozjs_anon_sym_LPAREN, mozjs_anon_sym_SEMI,
      mozjs_anon_sym_LBRACK, mozjs_anon_sym_LT, mozjs_anon_sym_DQUOTE, mozjs_anon_sym_SQUOTE,
      mozjs_anon_sym_BANG, mozjs_anon_sym_TILDE, mozjs_anon_sym_PLUS_PLUS,
      mozjs_anon_sym_DASH_DASH, mozjs_anon_sym_BQUOTE, mozjs_sym_number, mozjs_anon_sym_AT,
      mozjs_sym_preproc, 1361, 44, mozjs_anon_sym_export, mozjs_anon_sym_default,
      mozjs_anon_sym_import, mozjs_anon_sym_with, mozjs_anon_sym_var, mozjs_anon_sym_let,
      mozjs_anon_sym_const, mozjs_anon_sym_using, mozjs_anon_sym_await, mozjs_anon_sym_else,
      mozjs_anon_sym_if, mozjs_anon_sym_switch, mozjs_anon_sym_for, mozjs_anon_sym_while,
      mozjs_anon_sym_do, mozjs_anon_sym_try, mozjs_anon_sym_break, mozjs_anon_sym_continue,
      mozjs_anon_sym_debugger, mozjs_anon_sym_return, mozjs_anon_sym_throw, mozjs_anon_sym_case,
      mozjs_anon_sym_yield, mozjs_anon_sym_class, mozjs_anon_sym_async, mozjs_anon_sym_function,
      mozjs_anon_sym_new, mozjs_anon_sym_PLUS, mozjs_anon_sym_DASH, mozjs_anon_sym_SLASH,
      mozjs_anon_sym_typeof, mozjs_anon_sym_void, mozjs_anon_sym_delete, mozjs_sym_identifier,
      mozjs_sym_private_property_identifier, mozjs_sym_this, mozjs_sym_super, mozjs_sym_true,
      mozjs_sym_false, mozjs_sym_null, mozjs_sym_undefined, mozjs_anon_sym_static,
      mozjs_anon_sym_get, mozjs_anon_sym_set]"

definition mozjs_small_run_5562 :: "nat list" where
  "mozjs_small_run_5562 =
    [3, 5, 2, mozjs_sym_html_comment, mozjs_sym_comment, 1183, 17, ts_builtin_sym_end,
      mozjs_anon_sym_LBRACE, mozjs_anon_sym_RBRACE, mozjs_anon_sym_LPAREN, mozjs_anon_sym_SEMI,
      mozjs_anon_sym_LBRACK, mozjs_anon_sym_LT, mozjs_anon_sym_DQUOTE, mozjs_anon_sym_SQUOTE,
      mozjs_anon_sym_BANG, mozjs_anon_sym_TILDE, mozjs_anon_sym_PLUS_PLUS,
      mozjs_anon_sym_DASH_DASH, mozjs_anon_sym_BQUOTE, mozjs_sym_number, mozjs_anon_sym_AT,
      mozjs_sym_preproc, 1185, 44, mozjs_anon_sym_export, mozjs_anon_sym_default,
      mozjs_anon_sym_import, mozjs_anon_sym_with, mozjs_anon_sym_var, mozjs_anon_sym_let,
      mozjs_anon_sym_const, mozjs_anon_sym_using, mozjs_anon_sym_await, mozjs_anon_sym_else,
      mozjs_anon_sym_if, mozjs_anon_sym_switch, mozjs_anon_sym_for, mozjs_anon_sym_while,
      mozjs_anon_sym_do, mozjs_anon_sym_try, mozjs_anon_sym_break, mozjs_anon_sym_continue,
      mozjs_anon_sym_debugger, mozjs_anon_sym_return, mozjs_anon_sym_throw, mozjs_anon_sym_case,
      mozjs_anon_sym_yield, mozjs_anon_sym_class, mozjs_anon_sym_async, mozjs_anon_sym_function,
      mozjs_anon_sym_new, mozjs_anon_sym_PLUS, mozjs_anon_sym_DASH, mozjs_anon_sym_SLASH,
      mozjs_anon_sym_typeof, mozjs_anon_sym_void, mozjs_anon_sym_delete, mozjs_sym_identifier,
      mozjs_sym_private_property_identifier, mozjs_sym_this, mozjs_sym_super, mozjs_sym_true,
      mozjs_sym_false, mozjs_sym_null, mozjs_sym_undefined, mozjs_anon_sym_static,
      mozjs_anon_sym_get, mozjs_anon_sym_set]"

definition mozjs_small_run_5632 :: "nat list" where
  "mozjs_small_run_5632 =
    [3, 5, 2, mozjs_sym_html_comment, mozjs_sym_comment, 1363, 17, ts_builtin_sym_end,
      mozjs_anon_sym_LBRACE, mozjs_anon_sym_RBRACE, mozjs_anon_sym_LPAREN, mozjs_anon_sym_SEMI,
      mozjs_anon_sym_LBRACK, mozjs_anon_sym_LT, mozjs_anon_sym_DQUOTE, mozjs_anon_sym_SQUOTE,
      mozjs_anon_sym_BANG, mozjs_anon_sym_TILDE, mozjs_anon_sym_PLUS_PLUS,
      mozjs_anon_sym_DASH_DASH, mozjs_anon_sym_BQUOTE, mozjs_sym_number, mozjs_anon_sym_AT,
      mozjs_sym_preproc, 1365, 44, mozjs_anon_sym_export, mozjs_anon_sym_default,
      mozjs_anon_sym_import, mozjs_anon_sym_with, mozjs_anon_sym_var, mozjs_anon_sym_let,
      mozjs_anon_sym_const, mozjs_anon_sym_using, mozjs_anon_sym_await, mozjs_anon_sym_else,
      mozjs_anon_sym_if, mozjs_anon_sym_switch, mozjs_anon_sym_for, mozjs_anon_sym_while,
      mozjs_anon_sym_do, mozjs_anon_sym_try, mozjs_anon_sym_break, mozjs_anon_sym_continue,
      mozjs_anon_sym_debugger, mozjs_anon_sym_return, mozjs_anon_sym_throw, mozjs_anon_sym_case,
      mozjs_anon_sym_yield, mozjs_anon_sym_class, mozjs_anon_sym_async, mozjs_anon_sym_function,
      mozjs_anon_sym_new, mozjs_anon_sym_PLUS, mozjs_anon_sym_DASH, mozjs_anon_sym_SLASH,
      mozjs_anon_sym_typeof, mozjs_anon_sym_void, mozjs_anon_sym_delete, mozjs_sym_identifier,
      mozjs_sym_private_property_identifier, mozjs_sym_this, mozjs_sym_super, mozjs_sym_true,
      mozjs_sym_false, mozjs_sym_null, mozjs_sym_undefined, mozjs_anon_sym_static,
      mozjs_anon_sym_get, mozjs_anon_sym_set]"

definition mozjs_small_run_5702 :: "nat list" where
  "mozjs_small_run_5702 =
    [3, 5, 2, mozjs_sym_html_comment, mozjs_sym_comment, 1367, 17, ts_builtin_sym_end,
      mozjs_anon_sym_LBRACE, mozjs_anon_sym_RBRACE, mozjs_anon_sym_LPAREN, mozjs_anon_sym_SEMI,
      mozjs_anon_sym_LBRACK, mozjs_anon_sym_LT, mozjs_anon_sym_DQUOTE, mozjs_anon_sym_SQUOTE,
      mozjs_anon_sym_BANG, mozjs_anon_sym_TILDE, mozjs_anon_sym_PLUS_PLUS,
      mozjs_anon_sym_DASH_DASH, mozjs_anon_sym_BQUOTE, mozjs_sym_number, mozjs_anon_sym_AT,
      mozjs_sym_preproc, 1369, 44, mozjs_anon_sym_export, mozjs_anon_sym_default,
      mozjs_anon_sym_import, mozjs_anon_sym_with, mozjs_anon_sym_var, mozjs_anon_sym_let,
      mozjs_anon_sym_const, mozjs_anon_sym_using, mozjs_anon_sym_await, mozjs_anon_sym_else,
      mozjs_anon_sym_if, mozjs_anon_sym_switch, mozjs_anon_sym_for, mozjs_anon_sym_while,
      mozjs_anon_sym_do, mozjs_anon_sym_try, mozjs_anon_sym_break, mozjs_anon_sym_continue,
      mozjs_anon_sym_debugger, mozjs_anon_sym_return, mozjs_anon_sym_throw, mozjs_anon_sym_case,
      mozjs_anon_sym_yield, mozjs_anon_sym_class, mozjs_anon_sym_async, mozjs_anon_sym_function,
      mozjs_anon_sym_new, mozjs_anon_sym_PLUS, mozjs_anon_sym_DASH, mozjs_anon_sym_SLASH,
      mozjs_anon_sym_typeof, mozjs_anon_sym_void, mozjs_anon_sym_delete, mozjs_sym_identifier,
      mozjs_sym_private_property_identifier, mozjs_sym_this, mozjs_sym_super, mozjs_sym_true,
      mozjs_sym_false, mozjs_sym_null, mozjs_sym_undefined, mozjs_anon_sym_static,
      mozjs_anon_sym_get, mozjs_anon_sym_set]"

definition mozjs_small_run_5772 :: "nat list" where
  "mozjs_small_run_5772 =
    [3, 5, 2, mozjs_sym_html_comment, mozjs_sym_comment, 1371, 17, ts_builtin_sym_end,
      mozjs_anon_sym_LBRACE, mozjs_anon_sym_RBRACE, mozjs_anon_sym_LPAREN, mozjs_anon_sym_SEMI,
      mozjs_anon_sym_LBRACK, mozjs_anon_sym_LT, mozjs_anon_sym_DQUOTE, mozjs_anon_sym_SQUOTE,
      mozjs_anon_sym_BANG, mozjs_anon_sym_TILDE, mozjs_anon_sym_PLUS_PLUS,
      mozjs_anon_sym_DASH_DASH, mozjs_anon_sym_BQUOTE, mozjs_sym_number, mozjs_anon_sym_AT,
      mozjs_sym_preproc, 1373, 44, mozjs_anon_sym_export, mozjs_anon_sym_default,
      mozjs_anon_sym_import, mozjs_anon_sym_with, mozjs_anon_sym_var, mozjs_anon_sym_let,
      mozjs_anon_sym_const, mozjs_anon_sym_using, mozjs_anon_sym_await, mozjs_anon_sym_else,
      mozjs_anon_sym_if, mozjs_anon_sym_switch, mozjs_anon_sym_for, mozjs_anon_sym_while,
      mozjs_anon_sym_do, mozjs_anon_sym_try, mozjs_anon_sym_break, mozjs_anon_sym_continue,
      mozjs_anon_sym_debugger, mozjs_anon_sym_return, mozjs_anon_sym_throw, mozjs_anon_sym_case,
      mozjs_anon_sym_yield, mozjs_anon_sym_class, mozjs_anon_sym_async, mozjs_anon_sym_function,
      mozjs_anon_sym_new, mozjs_anon_sym_PLUS, mozjs_anon_sym_DASH, mozjs_anon_sym_SLASH,
      mozjs_anon_sym_typeof, mozjs_anon_sym_void, mozjs_anon_sym_delete, mozjs_sym_identifier,
      mozjs_sym_private_property_identifier, mozjs_sym_this, mozjs_sym_super, mozjs_sym_true,
      mozjs_sym_false, mozjs_sym_null, mozjs_sym_undefined, mozjs_anon_sym_static,
      mozjs_anon_sym_get, mozjs_anon_sym_set]"

definition mozjs_small_run_5842 :: "nat list" where
  "mozjs_small_run_5842 =
    [3, 5, 2, mozjs_sym_html_comment, mozjs_sym_comment, 1375, 17, ts_builtin_sym_end,
      mozjs_anon_sym_LBRACE, mozjs_anon_sym_RBRACE, mozjs_anon_sym_LPAREN, mozjs_anon_sym_SEMI,
      mozjs_anon_sym_LBRACK, mozjs_anon_sym_LT, mozjs_anon_sym_DQUOTE, mozjs_anon_sym_SQUOTE,
      mozjs_anon_sym_BANG, mozjs_anon_sym_TILDE, mozjs_anon_sym_PLUS_PLUS,
      mozjs_anon_sym_DASH_DASH, mozjs_anon_sym_BQUOTE, mozjs_sym_number, mozjs_anon_sym_AT,
      mozjs_sym_preproc, 1377, 44, mozjs_anon_sym_export, mozjs_anon_sym_default,
      mozjs_anon_sym_import, mozjs_anon_sym_with, mozjs_anon_sym_var, mozjs_anon_sym_let,
      mozjs_anon_sym_const, mozjs_anon_sym_using, mozjs_anon_sym_await, mozjs_anon_sym_else,
      mozjs_anon_sym_if, mozjs_anon_sym_switch, mozjs_anon_sym_for, mozjs_anon_sym_while,
      mozjs_anon_sym_do, mozjs_anon_sym_try, mozjs_anon_sym_break, mozjs_anon_sym_continue,
      mozjs_anon_sym_debugger, mozjs_anon_sym_return, mozjs_anon_sym_throw, mozjs_anon_sym_case,
      mozjs_anon_sym_yield, mozjs_anon_sym_class, mozjs_anon_sym_async, mozjs_anon_sym_function,
      mozjs_anon_sym_new, mozjs_anon_sym_PLUS, mozjs_anon_sym_DASH, mozjs_anon_sym_SLASH,
      mozjs_anon_sym_typeof, mozjs_anon_sym_void, mozjs_anon_sym_delete, mozjs_sym_identifier,
      mozjs_sym_private_property_identifier, mozjs_sym_this, mozjs_sym_super, mozjs_sym_true,
      mozjs_sym_false, mozjs_sym_null, mozjs_sym_undefined, mozjs_anon_sym_static,
      mozjs_anon_sym_get, mozjs_anon_sym_set]"

definition mozjs_small_run_5912 :: "nat list" where
  "mozjs_small_run_5912 =
    [3, 5, 2, mozjs_sym_html_comment, mozjs_sym_comment, 1379, 17, ts_builtin_sym_end,
      mozjs_anon_sym_LBRACE, mozjs_anon_sym_RBRACE, mozjs_anon_sym_LPAREN, mozjs_anon_sym_SEMI,
      mozjs_anon_sym_LBRACK, mozjs_anon_sym_LT, mozjs_anon_sym_DQUOTE, mozjs_anon_sym_SQUOTE,
      mozjs_anon_sym_BANG, mozjs_anon_sym_TILDE, mozjs_anon_sym_PLUS_PLUS,
      mozjs_anon_sym_DASH_DASH, mozjs_anon_sym_BQUOTE, mozjs_sym_number, mozjs_anon_sym_AT,
      mozjs_sym_preproc, 1381, 44, mozjs_anon_sym_export, mozjs_anon_sym_default,
      mozjs_anon_sym_import, mozjs_anon_sym_with, mozjs_anon_sym_var, mozjs_anon_sym_let,
      mozjs_anon_sym_const, mozjs_anon_sym_using, mozjs_anon_sym_await, mozjs_anon_sym_else,
      mozjs_anon_sym_if, mozjs_anon_sym_switch, mozjs_anon_sym_for, mozjs_anon_sym_while,
      mozjs_anon_sym_do, mozjs_anon_sym_try, mozjs_anon_sym_break, mozjs_anon_sym_continue,
      mozjs_anon_sym_debugger, mozjs_anon_sym_return, mozjs_anon_sym_throw, mozjs_anon_sym_case,
      mozjs_anon_sym_yield, mozjs_anon_sym_class, mozjs_anon_sym_async, mozjs_anon_sym_function,
      mozjs_anon_sym_new, mozjs_anon_sym_PLUS, mozjs_anon_sym_DASH, mozjs_anon_sym_SLASH,
      mozjs_anon_sym_typeof, mozjs_anon_sym_void, mozjs_anon_sym_delete, mozjs_sym_identifier,
      mozjs_sym_private_property_identifier, mozjs_sym_this, mozjs_sym_super, mozjs_sym_true,
      mozjs_sym_false, mozjs_sym_null, mozjs_sym_undefined, mozjs_anon_sym_static,
      mozjs_anon_sym_get, mozjs_anon_sym_set]"

definition mozjs_small_run_5982 :: "nat list" where
  "mozjs_small_run_5982 =
    [3, 5, 2, mozjs_sym_html_comment, mozjs_sym_comment, 1383, 17, ts_builtin_sym_end,
      mozjs_anon_sym_LBRACE, mozjs_anon_sym_RBRACE, mozjs_anon_sym_LPAREN, mozjs_anon_sym_SEMI,
      mozjs_anon_sym_LBRACK, mozjs_anon_sym_LT, mozjs_anon_sym_DQUOTE, mozjs_anon_sym_SQUOTE,
      mozjs_anon_sym_BANG, mozjs_anon_sym_TILDE, mozjs_anon_sym_PLUS_PLUS,
      mozjs_anon_sym_DASH_DASH, mozjs_anon_sym_BQUOTE, mozjs_sym_number, mozjs_anon_sym_AT,
      mozjs_sym_preproc, 1385, 44, mozjs_anon_sym_export, mozjs_anon_sym_default,
      mozjs_anon_sym_import, mozjs_anon_sym_with, mozjs_anon_sym_var, mozjs_anon_sym_let,
      mozjs_anon_sym_const, mozjs_anon_sym_using, mozjs_anon_sym_await, mozjs_anon_sym_else,
      mozjs_anon_sym_if, mozjs_anon_sym_switch, mozjs_anon_sym_for, mozjs_anon_sym_while,
      mozjs_anon_sym_do, mozjs_anon_sym_try, mozjs_anon_sym_break, mozjs_anon_sym_continue,
      mozjs_anon_sym_debugger, mozjs_anon_sym_return, mozjs_anon_sym_throw, mozjs_anon_sym_case,
      mozjs_anon_sym_yield, mozjs_anon_sym_class, mozjs_anon_sym_async, mozjs_anon_sym_function,
      mozjs_anon_sym_new, mozjs_anon_sym_PLUS, mozjs_anon_sym_DASH, mozjs_anon_sym_SLASH,
      mozjs_anon_sym_typeof, mozjs_anon_sym_void, mozjs_anon_sym_delete, mozjs_sym_identifier,
      mozjs_sym_private_property_identifier, mozjs_sym_this, mozjs_sym_super, mozjs_sym_true,
      mozjs_sym_false, mozjs_sym_null, mozjs_sym_undefined, mozjs_anon_sym_static,
      mozjs_anon_sym_get, mozjs_anon_sym_set]"

definition mozjs_small_run_6052 :: "nat list" where
  "mozjs_small_run_6052 =
    [3, 5, 2, mozjs_sym_html_comment, mozjs_sym_comment, 1387, 17, ts_builtin_sym_end,
      mozjs_anon_sym_LBRACE, mozjs_anon_sym_RBRACE, mozjs_anon_sym_LPAREN, mozjs_anon_sym_SEMI,
      mozjs_anon_sym_LBRACK, mozjs_anon_sym_LT, mozjs_anon_sym_DQUOTE, mozjs_anon_sym_SQUOTE,
      mozjs_anon_sym_BANG, mozjs_anon_sym_TILDE, mozjs_anon_sym_PLUS_PLUS,
      mozjs_anon_sym_DASH_DASH, mozjs_anon_sym_BQUOTE, mozjs_sym_number, mozjs_anon_sym_AT,
      mozjs_sym_preproc, 1389, 44, mozjs_anon_sym_export, mozjs_anon_sym_default,
      mozjs_anon_sym_import, mozjs_anon_sym_with, mozjs_anon_sym_var, mozjs_anon_sym_let,
      mozjs_anon_sym_const, mozjs_anon_sym_using, mozjs_anon_sym_await, mozjs_anon_sym_else,
      mozjs_anon_sym_if, mozjs_anon_sym_switch, mozjs_anon_sym_for, mozjs_anon_sym_while,
      mozjs_anon_sym_do, mozjs_anon_sym_try, mozjs_anon_sym_break, mozjs_anon_sym_continue,
      mozjs_anon_sym_debugger, mozjs_anon_sym_return, mozjs_anon_sym_throw, mozjs_anon_sym_case,
      mozjs_anon_sym_yield, mozjs_anon_sym_class, mozjs_anon_sym_async, mozjs_anon_sym_function,
      mozjs_anon_sym_new, mozjs_anon_sym_PLUS, mozjs_anon_sym_DASH, mozjs_anon_sym_SLASH,
      mozjs_anon_sym_typeof, mozjs_anon_sym_void, mozjs_anon_sym_delete, mozjs_sym_identifier,
      mozjs_sym_private_property_identifier, mozjs_sym_this, mozjs_sym_super, mozjs_sym_true,
      mozjs_sym_false, mozjs_sym_null, mozjs_sym_undefined, mozjs_anon_sym_static,
      mozjs_anon_sym_get, mozjs_anon_sym_set]"

definition mozjs_small_run_6122 :: "nat list" where
  "mozjs_small_run_6122 =
    [3, 5, 2, mozjs_sym_html_comment, mozjs_sym_comment, 1391, 17, ts_builtin_sym_end,
      mozjs_anon_sym_LBRACE, mozjs_anon_sym_RBRACE, mozjs_anon_sym_LPAREN, mozjs_anon_sym_SEMI,
      mozjs_anon_sym_LBRACK, mozjs_anon_sym_LT, mozjs_anon_sym_DQUOTE, mozjs_anon_sym_SQUOTE,
      mozjs_anon_sym_BANG, mozjs_anon_sym_TILDE, mozjs_anon_sym_PLUS_PLUS,
      mozjs_anon_sym_DASH_DASH, mozjs_anon_sym_BQUOTE, mozjs_sym_number, mozjs_anon_sym_AT,
      mozjs_sym_preproc, 1393, 44, mozjs_anon_sym_export, mozjs_anon_sym_default,
      mozjs_anon_sym_import, mozjs_anon_sym_with, mozjs_anon_sym_var, mozjs_anon_sym_let,
      mozjs_anon_sym_const, mozjs_anon_sym_using, mozjs_anon_sym_await, mozjs_anon_sym_else,
      mozjs_anon_sym_if, mozjs_anon_sym_switch, mozjs_anon_sym_for, mozjs_anon_sym_while,
      mozjs_anon_sym_do, mozjs_anon_sym_try, mozjs_anon_sym_break, mozjs_anon_sym_continue,
      mozjs_anon_sym_debugger, mozjs_anon_sym_return, mozjs_anon_sym_throw, mozjs_anon_sym_case,
      mozjs_anon_sym_yield, mozjs_anon_sym_class, mozjs_anon_sym_async, mozjs_anon_sym_function,
      mozjs_anon_sym_new, mozjs_anon_sym_PLUS, mozjs_anon_sym_DASH, mozjs_anon_sym_SLASH,
      mozjs_anon_sym_typeof, mozjs_anon_sym_void, mozjs_anon_sym_delete, mozjs_sym_identifier,
      mozjs_sym_private_property_identifier, mozjs_sym_this, mozjs_sym_super, mozjs_sym_true,
      mozjs_sym_false, mozjs_sym_null, mozjs_sym_undefined, mozjs_anon_sym_static,
      mozjs_anon_sym_get, mozjs_anon_sym_set]"

definition mozjs_small_run_6192 :: "nat list" where
  "mozjs_small_run_6192 =
    [3, 5, 2, mozjs_sym_html_comment, mozjs_sym_comment, 1183, 17, ts_builtin_sym_end,
      mozjs_anon_sym_LBRACE, mozjs_anon_sym_RBRACE, mozjs_anon_sym_LPAREN, mozjs_anon_sym_SEMI,
      mozjs_anon_sym_LBRACK, mozjs_anon_sym_LT, mozjs_anon_sym_DQUOTE, mozjs_anon_sym_SQUOTE,
      mozjs_anon_sym_BANG, mozjs_anon_sym_TILDE, mozjs_anon_sym_PLUS_PLUS,
      mozjs_anon_sym_DASH_DASH, mozjs_anon_sym_BQUOTE, mozjs_sym_number, mozjs_anon_sym_AT,
      mozjs_sym_preproc, 1185, 44, mozjs_anon_sym_export, mozjs_anon_sym_default,
      mozjs_anon_sym_import, mozjs_anon_sym_with, mozjs_anon_sym_var, mozjs_anon_sym_let,
      mozjs_anon_sym_const, mozjs_anon_sym_using, mozjs_anon_sym_await, mozjs_anon_sym_else,
      mozjs_anon_sym_if, mozjs_anon_sym_switch, mozjs_anon_sym_for, mozjs_anon_sym_while,
      mozjs_anon_sym_do, mozjs_anon_sym_try, mozjs_anon_sym_break, mozjs_anon_sym_continue,
      mozjs_anon_sym_debugger, mozjs_anon_sym_return, mozjs_anon_sym_throw, mozjs_anon_sym_case,
      mozjs_anon_sym_yield, mozjs_anon_sym_class, mozjs_anon_sym_async, mozjs_anon_sym_function,
      mozjs_anon_sym_new, mozjs_anon_sym_PLUS, mozjs_anon_sym_DASH, mozjs_anon_sym_SLASH,
      mozjs_anon_sym_typeof, mozjs_anon_sym_void, mozjs_anon_sym_delete, mozjs_sym_identifier,
      mozjs_sym_private_property_identifier, mozjs_sym_this, mozjs_sym_super, mozjs_sym_true,
      mozjs_sym_false, mozjs_sym_null, mozjs_sym_undefined, mozjs_anon_sym_static,
      mozjs_anon_sym_get, mozjs_anon_sym_set]"

definition mozjs_small_run_6262 :: "nat list" where
  "mozjs_small_run_6262 =
    [3, 5, 2, mozjs_sym_html_comment, mozjs_sym_comment, 1395, 17, ts_builtin_sym_end,
      mozjs_anon_sym_LBRACE, mozjs_anon_sym_RBRACE, mozjs_anon_sym_LPAREN, mozjs_anon_sym_SEMI,
      mozjs_anon_sym_LBRACK, mozjs_anon_sym_LT, mozjs_anon_sym_DQUOTE, mozjs_anon_sym_SQUOTE,
      mozjs_anon_sym_BANG, mozjs_anon_sym_TILDE, mozjs_anon_sym_PLUS_PLUS,
      mozjs_anon_sym_DASH_DASH, mozjs_anon_sym_BQUOTE, mozjs_sym_number, mozjs_anon_sym_AT,
      mozjs_sym_preproc, 1397, 44, mozjs_anon_sym_export, mozjs_anon_sym_default,
      mozjs_anon_sym_import, mozjs_anon_sym_with, mozjs_anon_sym_var, mozjs_anon_sym_let,
      mozjs_anon_sym_const, mozjs_anon_sym_using, mozjs_anon_sym_await, mozjs_anon_sym_else,
      mozjs_anon_sym_if, mozjs_anon_sym_switch, mozjs_anon_sym_for, mozjs_anon_sym_while,
      mozjs_anon_sym_do, mozjs_anon_sym_try, mozjs_anon_sym_break, mozjs_anon_sym_continue,
      mozjs_anon_sym_debugger, mozjs_anon_sym_return, mozjs_anon_sym_throw, mozjs_anon_sym_case,
      mozjs_anon_sym_yield, mozjs_anon_sym_class, mozjs_anon_sym_async, mozjs_anon_sym_function,
      mozjs_anon_sym_new, mozjs_anon_sym_PLUS, mozjs_anon_sym_DASH, mozjs_anon_sym_SLASH,
      mozjs_anon_sym_typeof, mozjs_anon_sym_void, mozjs_anon_sym_delete, mozjs_sym_identifier,
      mozjs_sym_private_property_identifier, mozjs_sym_this, mozjs_sym_super, mozjs_sym_true,
      mozjs_sym_false, mozjs_sym_null, mozjs_sym_undefined, mozjs_anon_sym_static,
      mozjs_anon_sym_get, mozjs_anon_sym_set]"

definition mozjs_small_run_6332 :: "nat list" where
  "mozjs_small_run_6332 =
    [3, 5, 2, mozjs_sym_html_comment, mozjs_sym_comment, 1399, 17, ts_builtin_sym_end,
      mozjs_anon_sym_LBRACE, mozjs_anon_sym_RBRACE, mozjs_anon_sym_LPAREN, mozjs_anon_sym_SEMI,
      mozjs_anon_sym_LBRACK, mozjs_anon_sym_LT, mozjs_anon_sym_DQUOTE, mozjs_anon_sym_SQUOTE,
      mozjs_anon_sym_BANG, mozjs_anon_sym_TILDE, mozjs_anon_sym_PLUS_PLUS,
      mozjs_anon_sym_DASH_DASH, mozjs_anon_sym_BQUOTE, mozjs_sym_number, mozjs_anon_sym_AT,
      mozjs_sym_preproc, 1401, 44, mozjs_anon_sym_export, mozjs_anon_sym_default,
      mozjs_anon_sym_import, mozjs_anon_sym_with, mozjs_anon_sym_var, mozjs_anon_sym_let,
      mozjs_anon_sym_const, mozjs_anon_sym_using, mozjs_anon_sym_await, mozjs_anon_sym_else,
      mozjs_anon_sym_if, mozjs_anon_sym_switch, mozjs_anon_sym_for, mozjs_anon_sym_while,
      mozjs_anon_sym_do, mozjs_anon_sym_try, mozjs_anon_sym_break, mozjs_anon_sym_continue,
      mozjs_anon_sym_debugger, mozjs_anon_sym_return, mozjs_anon_sym_throw, mozjs_anon_sym_case,
      mozjs_anon_sym_yield, mozjs_anon_sym_class, mozjs_anon_sym_async, mozjs_anon_sym_function,
      mozjs_anon_sym_new, mozjs_anon_sym_PLUS, mozjs_anon_sym_DASH, mozjs_anon_sym_SLASH,
      mozjs_anon_sym_typeof, mozjs_anon_sym_void, mozjs_anon_sym_delete, mozjs_sym_identifier,
      mozjs_sym_private_property_identifier, mozjs_sym_this, mozjs_sym_super, mozjs_sym_true,
      mozjs_sym_false, mozjs_sym_null, mozjs_sym_undefined, mozjs_anon_sym_static,
      mozjs_anon_sym_get, mozjs_anon_sym_set]"

definition mozjs_small_run_6402 :: "nat list" where
  "mozjs_small_run_6402 =
    [3, 5, 2, mozjs_sym_html_comment, mozjs_sym_comment, 1403, 17, ts_builtin_sym_end,
      mozjs_anon_sym_LBRACE, mozjs_anon_sym_RBRACE, mozjs_anon_sym_LPAREN, mozjs_anon_sym_SEMI,
      mozjs_anon_sym_LBRACK, mozjs_anon_sym_LT, mozjs_anon_sym_DQUOTE, mozjs_anon_sym_SQUOTE,
      mozjs_anon_sym_BANG, mozjs_anon_sym_TILDE, mozjs_anon_sym_PLUS_PLUS,
      mozjs_anon_sym_DASH_DASH, mozjs_anon_sym_BQUOTE, mozjs_sym_number, mozjs_anon_sym_AT,
      mozjs_sym_preproc, 1405, 44, mozjs_anon_sym_export, mozjs_anon_sym_default,
      mozjs_anon_sym_import, mozjs_anon_sym_with, mozjs_anon_sym_var, mozjs_anon_sym_let,
      mozjs_anon_sym_const, mozjs_anon_sym_using, mozjs_anon_sym_await, mozjs_anon_sym_else,
      mozjs_anon_sym_if, mozjs_anon_sym_switch, mozjs_anon_sym_for, mozjs_anon_sym_while,
      mozjs_anon_sym_do, mozjs_anon_sym_try, mozjs_anon_sym_break, mozjs_anon_sym_continue,
      mozjs_anon_sym_debugger, mozjs_anon_sym_return, mozjs_anon_sym_throw, mozjs_anon_sym_case,
      mozjs_anon_sym_yield, mozjs_anon_sym_class, mozjs_anon_sym_async, mozjs_anon_sym_function,
      mozjs_anon_sym_new, mozjs_anon_sym_PLUS, mozjs_anon_sym_DASH, mozjs_anon_sym_SLASH,
      mozjs_anon_sym_typeof, mozjs_anon_sym_void, mozjs_anon_sym_delete, mozjs_sym_identifier,
      mozjs_sym_private_property_identifier, mozjs_sym_this, mozjs_sym_super, mozjs_sym_true,
      mozjs_sym_false, mozjs_sym_null, mozjs_sym_undefined, mozjs_anon_sym_static,
      mozjs_anon_sym_get, mozjs_anon_sym_set]"

definition mozjs_small_run_6472 :: "nat list" where
  "mozjs_small_run_6472 =
    [3, 5, 2, mozjs_sym_html_comment, mozjs_sym_comment, 1183, 17, ts_builtin_sym_end,
      mozjs_anon_sym_LBRACE, mozjs_anon_sym_RBRACE, mozjs_anon_sym_LPAREN, mozjs_anon_sym_SEMI,
      mozjs_anon_sym_LBRACK, mozjs_anon_sym_LT, mozjs_anon_sym_DQUOTE, mozjs_anon_sym_SQUOTE,
      mozjs_anon_sym_BANG, mozjs_anon_sym_TILDE, mozjs_anon_sym_PLUS_PLUS,
      mozjs_anon_sym_DASH_DASH, mozjs_anon_sym_BQUOTE, mozjs_sym_number, mozjs_anon_sym_AT,
      mozjs_sym_preproc, 1185, 44, mozjs_anon_sym_export, mozjs_anon_sym_default,
      mozjs_anon_sym_import, mozjs_anon_sym_with, mozjs_anon_sym_var, mozjs_anon_sym_let,
      mozjs_anon_sym_const, mozjs_anon_sym_using, mozjs_anon_sym_await, mozjs_anon_sym_else,
      mozjs_anon_sym_if, mozjs_anon_sym_switch, mozjs_anon_sym_for, mozjs_anon_sym_while,
      mozjs_anon_sym_do, mozjs_anon_sym_try, mozjs_anon_sym_break, mozjs_anon_sym_continue,
      mozjs_anon_sym_debugger, mozjs_anon_sym_return, mozjs_anon_sym_throw, mozjs_anon_sym_case,
      mozjs_anon_sym_yield, mozjs_anon_sym_class, mozjs_anon_sym_async, mozjs_anon_sym_function,
      mozjs_anon_sym_new, mozjs_anon_sym_PLUS, mozjs_anon_sym_DASH, mozjs_anon_sym_SLASH,
      mozjs_anon_sym_typeof, mozjs_anon_sym_void, mozjs_anon_sym_delete, mozjs_sym_identifier,
      mozjs_sym_private_property_identifier, mozjs_sym_this, mozjs_sym_super, mozjs_sym_true,
      mozjs_sym_false, mozjs_sym_null, mozjs_sym_undefined, mozjs_anon_sym_static,
      mozjs_anon_sym_get, mozjs_anon_sym_set]"

definition mozjs_small_run_6542 :: "nat list" where
  "mozjs_small_run_6542 =
    [3, 5, 2, mozjs_sym_html_comment, mozjs_sym_comment, 1407, 17, ts_builtin_sym_end,
      mozjs_anon_sym_LBRACE, mozjs_anon_sym_RBRACE, mozjs_anon_sym_LPAREN, mozjs_anon_sym_SEMI,
      mozjs_anon_sym_LBRACK, mozjs_anon_sym_LT, mozjs_anon_sym_DQUOTE, mozjs_anon_sym_SQUOTE,
      mozjs_anon_sym_BANG, mozjs_anon_sym_TILDE, mozjs_anon_sym_PLUS_PLUS,
      mozjs_anon_sym_DASH_DASH, mozjs_anon_sym_BQUOTE, mozjs_sym_number, mozjs_anon_sym_AT,
      mozjs_sym_preproc, 1409, 44, mozjs_anon_sym_export, mozjs_anon_sym_default,
      mozjs_anon_sym_import, mozjs_anon_sym_with, mozjs_anon_sym_var, mozjs_anon_sym_let,
      mozjs_anon_sym_const, mozjs_anon_sym_using, mozjs_anon_sym_await, mozjs_anon_sym_else,
      mozjs_anon_sym_if, mozjs_anon_sym_switch, mozjs_anon_sym_for, mozjs_anon_sym_while,
      mozjs_anon_sym_do, mozjs_anon_sym_try, mozjs_anon_sym_break, mozjs_anon_sym_continue,
      mozjs_anon_sym_debugger, mozjs_anon_sym_return, mozjs_anon_sym_throw, mozjs_anon_sym_case,
      mozjs_anon_sym_yield, mozjs_anon_sym_class, mozjs_anon_sym_async, mozjs_anon_sym_function,
      mozjs_anon_sym_new, mozjs_anon_sym_PLUS, mozjs_anon_sym_DASH, mozjs_anon_sym_SLASH,
      mozjs_anon_sym_typeof, mozjs_anon_sym_void, mozjs_anon_sym_delete, mozjs_sym_identifier,
      mozjs_sym_private_property_identifier, mozjs_sym_this, mozjs_sym_super, mozjs_sym_true,
      mozjs_sym_false, mozjs_sym_null, mozjs_sym_undefined, mozjs_anon_sym_static,
      mozjs_anon_sym_get, mozjs_anon_sym_set]"

definition mozjs_small_run_6612 :: "nat list" where
  "mozjs_small_run_6612 =
    [3, 5, 2, mozjs_sym_html_comment, mozjs_sym_comment, 1411, 17, ts_builtin_sym_end,
      mozjs_anon_sym_LBRACE, mozjs_anon_sym_RBRACE, mozjs_anon_sym_LPAREN, mozjs_anon_sym_SEMI,
      mozjs_anon_sym_LBRACK, mozjs_anon_sym_LT, mozjs_anon_sym_DQUOTE, mozjs_anon_sym_SQUOTE,
      mozjs_anon_sym_BANG, mozjs_anon_sym_TILDE, mozjs_anon_sym_PLUS_PLUS,
      mozjs_anon_sym_DASH_DASH, mozjs_anon_sym_BQUOTE, mozjs_sym_number, mozjs_anon_sym_AT,
      mozjs_sym_preproc, 1413, 44, mozjs_anon_sym_export, mozjs_anon_sym_default,
      mozjs_anon_sym_import, mozjs_anon_sym_with, mozjs_anon_sym_var, mozjs_anon_sym_let,
      mozjs_anon_sym_const, mozjs_anon_sym_using, mozjs_anon_sym_await, mozjs_anon_sym_else,
      mozjs_anon_sym_if, mozjs_anon_sym_switch, mozjs_anon_sym_for, mozjs_anon_sym_while,
      mozjs_anon_sym_do, mozjs_anon_sym_try, mozjs_anon_sym_break, mozjs_anon_sym_continue,
      mozjs_anon_sym_debugger, mozjs_anon_sym_return, mozjs_anon_sym_throw, mozjs_anon_sym_case,
      mozjs_anon_sym_yield, mozjs_anon_sym_class, mozjs_anon_sym_async, mozjs_anon_sym_function,
      mozjs_anon_sym_new, mozjs_anon_sym_PLUS, mozjs_anon_sym_DASH, mozjs_anon_sym_SLASH,
      mozjs_anon_sym_typeof, mozjs_anon_sym_void, mozjs_anon_sym_delete, mozjs_sym_identifier,
      mozjs_sym_private_property_identifier, mozjs_sym_this, mozjs_sym_super, mozjs_sym_true,
      mozjs_sym_false, mozjs_sym_null, mozjs_sym_undefined, mozjs_anon_sym_static,
      mozjs_anon_sym_get, mozjs_anon_sym_set]"

definition mozjs_small_run_6682 :: "nat list" where
  "mozjs_small_run_6682 =
    [3, 5, 2, mozjs_sym_html_comment, mozjs_sym_comment, 1415, 17, ts_builtin_sym_end,
      mozjs_anon_sym_LBRACE, mozjs_anon_sym_RBRACE, mozjs_anon_sym_LPAREN, mozjs_anon_sym_SEMI,
      mozjs_anon_sym_LBRACK, mozjs_anon_sym_LT, mozjs_anon_sym_DQUOTE, mozjs_anon_sym_SQUOTE,
      mozjs_anon_sym_BANG, mozjs_anon_sym_TILDE, mozjs_anon_sym_PLUS_PLUS,
      mozjs_anon_sym_DASH_DASH, mozjs_anon_sym_BQUOTE, mozjs_sym_number, mozjs_anon_sym_AT,
      mozjs_sym_preproc, 1417, 44, mozjs_anon_sym_export, mozjs_anon_sym_default,
      mozjs_anon_sym_import, mozjs_anon_sym_with, mozjs_anon_sym_var, mozjs_anon_sym_let,
      mozjs_anon_sym_const, mozjs_anon_sym_using, mozjs_anon_sym_await, mozjs_anon_sym_else,
      mozjs_anon_sym_if, mozjs_anon_sym_switch, mozjs_anon_sym_for, mozjs_anon_sym_while,
      mozjs_anon_sym_do, mozjs_anon_sym_try, mozjs_anon_sym_break, mozjs_anon_sym_continue,
      mozjs_anon_sym_debugger, mozjs_anon_sym_return, mozjs_anon_sym_throw, mozjs_anon_sym_case,
      mozjs_anon_sym_yield, mozjs_anon_sym_class, mozjs_anon_sym_async, mozjs_anon_sym_function,
      mozjs_anon_sym_new, mozjs_anon_sym_PLUS, mozjs_anon_sym_DASH, mozjs_anon_sym_SLASH,
      mozjs_anon_sym_typeof, mozjs_anon_sym_void, mozjs_anon_sym_delete, mozjs_sym_identifier,
      mozjs_sym_private_property_identifier, mozjs_sym_this, mozjs_sym_super, mozjs_sym_true,
      mozjs_sym_false, mozjs_sym_null, mozjs_sym_undefined, mozjs_anon_sym_static,
      mozjs_anon_sym_get, mozjs_anon_sym_set]"

definition mozjs_small_run_6752 :: "nat list" where
  "mozjs_small_run_6752 =
    [11, 471, 1, mozjs_anon_sym_EQ, 534, 1, mozjs_anon_sym_EQ_GT, 1104, 1, mozjs_anon_sym_LPAREN,
      1107, 1, mozjs_anon_sym_function, 1127, 1, mozjs_sym_identifier, 1832, 1,
      mozjs_sym_formal_parameters, 5, 2, mozjs_sym_html_comment, mozjs_sym_comment, 1129, 7,
      mozjs_anon_sym_export, mozjs_anon_sym_let, mozjs_anon_sym_await, mozjs_anon_sym_async,
      mozjs_anon_sym_static, mozjs_anon_sym_get, mozjs_anon_sym_set, 311, 12,
      mozjs_sym__ternary_qmark, mozjs_anon_sym_COLON, mozjs_anon_sym_LBRACK, mozjs_anon_sym_DOT,
      mozjs_sym_optional_chain, mozjs_anon_sym_LT_EQ, mozjs_anon_sym_EQ_EQ_EQ,
      mozjs_anon_sym_BANG_EQ_EQ, mozjs_anon_sym_GT_EQ, mozjs_anon_sym_PLUS_PLUS,
      mozjs_anon_sym_DASH_DASH, mozjs_anon_sym_BQUOTE, 344, 15, mozjs_anon_sym_PLUS_EQ,
      mozjs_anon_sym_DASH_EQ, mozjs_anon_sym_STAR_EQ, mozjs_anon_sym_SLASH_EQ,
      mozjs_anon_sym_PERCENT_EQ, mozjs_anon_sym_CARET_EQ, mozjs_anon_sym_AMP_EQ,
      mozjs_anon_sym_PIPE_EQ, mozjs_anon_sym_GT_GT_EQ, mozjs_anon_sym_GT_GT_GT_EQ,
      mozjs_anon_sym_LT_LT_EQ, mozjs_anon_sym_STAR_STAR_EQ, mozjs_anon_sym_AMP_AMP_EQ,
      mozjs_anon_sym_PIPE_PIPE_EQ, mozjs_anon_sym_QMARK_QMARK_EQ, 307, 21, mozjs_anon_sym_STAR,
      mozjs_anon_sym_in, mozjs_anon_sym_LT, mozjs_anon_sym_GT, mozjs_anon_sym_AMP_AMP,
      mozjs_anon_sym_PIPE_PIPE, mozjs_anon_sym_GT_GT, mozjs_anon_sym_GT_GT_GT,
      mozjs_anon_sym_LT_LT, mozjs_anon_sym_AMP, mozjs_anon_sym_CARET, mozjs_anon_sym_PIPE,
      mozjs_anon_sym_PLUS, mozjs_anon_sym_DASH, mozjs_anon_sym_SLASH, mozjs_anon_sym_PERCENT,
      mozjs_anon_sym_STAR_STAR, mozjs_anon_sym_EQ_EQ, mozjs_anon_sym_BANG_EQ,
      mozjs_anon_sym_QMARK_QMARK, mozjs_anon_sym_instanceof]"

definition mozjs_small_run_6838 :: "nat list" where
  "mozjs_small_run_6838 =
    [11, 595, 1, mozjs_anon_sym_EQ, 599, 1, mozjs_anon_sym_EQ_GT, 1104, 1, mozjs_anon_sym_LPAREN,
      1107, 1, mozjs_anon_sym_function, 1419, 1, mozjs_sym_identifier, 1791, 1,
      mozjs_sym_formal_parameters, 5, 2, mozjs_sym_html_comment, mozjs_sym_comment, 1421, 7,
      mozjs_anon_sym_export, mozjs_anon_sym_let, mozjs_anon_sym_await, mozjs_anon_sym_async,
      mozjs_anon_sym_static, mozjs_anon_sym_get, mozjs_anon_sym_set, 311, 11,
      mozjs_sym__ternary_qmark, mozjs_anon_sym_LBRACK, mozjs_anon_sym_DOT,
      mozjs_sym_optional_chain, mozjs_anon_sym_LT_EQ, mozjs_anon_sym_EQ_EQ_EQ,
      mozjs_anon_sym_BANG_EQ_EQ, mozjs_anon_sym_GT_EQ, mozjs_anon_sym_PLUS_PLUS,
      mozjs_anon_sym_DASH_DASH, mozjs_anon_sym_BQUOTE, 344, 15, mozjs_anon_sym_PLUS_EQ,
      mozjs_anon_sym_DASH_EQ, mozjs_anon_sym_STAR_EQ, mozjs_anon_sym_SLASH_EQ,
      mozjs_anon_sym_PERCENT_EQ, mozjs_anon_sym_CARET_EQ, mozjs_anon_sym_AMP_EQ,
      mozjs_anon_sym_PIPE_EQ, mozjs_anon_sym_GT_GT_EQ, mozjs_anon_sym_GT_GT_GT_EQ,
      mozjs_anon_sym_LT_LT_EQ, mozjs_anon_sym_STAR_STAR_EQ, mozjs_anon_sym_AMP_AMP_EQ,
      mozjs_anon_sym_PIPE_PIPE_EQ, mozjs_anon_sym_QMARK_QMARK_EQ, 307, 22, mozjs_anon_sym_STAR,
      mozjs_anon_sym_of, mozjs_anon_sym_in, mozjs_anon_sym_LT, mozjs_anon_sym_GT,
      mozjs_anon_sym_AMP_AMP, mozjs_anon_sym_PIPE_PIPE, mozjs_anon_sym_GT_GT,
      mozjs_anon_sym_GT_GT_GT, mozjs_anon_sym_LT_LT, mozjs_anon_sym_AMP, mozjs_anon_sym_CARET,
      mozjs_anon_sym_PIPE, mozjs_anon_sym_PLUS, mozjs_anon_sym_DASH, mozjs_anon_sym_SLASH,
      mozjs_anon_sym_PERCENT, mozjs_anon_sym_STAR_STAR, mozjs_anon_sym_EQ_EQ,
      mozjs_anon_sym_BANG_EQ, mozjs_anon_sym_QMARK_QMARK, mozjs_anon_sym_instanceof]"

definition mozjs_small_run_6924 :: "nat list" where
  "mozjs_small_run_6924 =
    [11, 471, 1, mozjs_anon_sym_EQ, 599, 1, mozjs_anon_sym_EQ_GT, 1104, 1, mozjs_anon_sym_LPAREN,
      1107, 1, mozjs_anon_sym_function, 1419, 1, mozjs_sym_identifier, 1791, 1,
      mozjs_sym_formal_parameters, 5, 2, mozjs_sym_html_comment, mozjs_sym_comment, 1421, 7,
      mozjs_anon_sym_export, mozjs_anon_sym_let, mozjs_anon_sym_await, mozjs_anon_sym_async,
      mozjs_anon_sym_static, mozjs_anon_sym_get, mozjs_anon_sym_set, 311, 11,
      mozjs_sym__ternary_qmark, mozjs_anon_sym_LBRACK, mozjs_anon_sym_DOT,
      mozjs_sym_optional_chain, mozjs_anon_sym_LT_EQ, mozjs_anon_sym_EQ_EQ_EQ,
      mozjs_anon_sym_BANG_EQ_EQ, mozjs_anon_sym_GT_EQ, mozjs_anon_sym_PLUS_PLUS,
      mozjs_anon_sym_DASH_DASH, mozjs_anon_sym_BQUOTE, 344, 15, mozjs_anon_sym_PLUS_EQ,
      mozjs_anon_sym_DASH_EQ, mozjs_anon_sym_STAR_EQ, mozjs_anon_sym_SLASH_EQ,
      mozjs_anon_sym_PERCENT_EQ, mozjs_anon_sym_CARET_EQ, mozjs_anon_sym_AMP_EQ,
      mozjs_anon_sym_PIPE_EQ, mozjs_anon_sym_GT_GT_EQ, mozjs_anon_sym_GT_GT_GT_EQ,
      mozjs_anon_sym_LT_LT_EQ, mozjs_anon_sym_STAR_STAR_EQ, mozjs_anon_sym_AMP_AMP_EQ,
      mozjs_anon_sym_PIPE_PIPE_EQ, mozjs_anon_sym_QMARK_QMARK_EQ, 307, 22, mozjs_anon_sym_STAR,
      mozjs_anon_sym_of, mozjs_anon_sym_in, mozjs_anon_sym_LT, mozjs_anon_sym_GT,
      mozjs_anon_sym_AMP_AMP, mozjs_anon_sym_PIPE_PIPE, mozjs_anon_sym_GT_GT,
      mozjs_anon_sym_GT_GT_GT, mozjs_anon_sym_LT_LT, mozjs_anon_sym_AMP, mozjs_anon_sym_CARET,
      mozjs_anon_sym_PIPE, mozjs_anon_sym_PLUS, mozjs_anon_sym_DASH, mozjs_anon_sym_SLASH,
      mozjs_anon_sym_PERCENT, mozjs_anon_sym_STAR_STAR, mozjs_anon_sym_EQ_EQ,
      mozjs_anon_sym_BANG_EQ, mozjs_anon_sym_QMARK_QMARK, mozjs_anon_sym_instanceof]"

definition mozjs_small_run_7010 :: "nat list" where
  "mozjs_small_run_7010 =
    [3, 5, 2, mozjs_sym_html_comment, mozjs_sym_comment, 1423, 17, ts_builtin_sym_end,
      mozjs_anon_sym_LBRACE, mozjs_anon_sym_RBRACE, mozjs_anon_sym_LPAREN, mozjs_anon_sym_SEMI,
      mozjs_anon_sym_LBRACK, mozjs_anon_sym_LT, mozjs_anon_sym_DQUOTE, mozjs_anon_sym_SQUOTE,
      mozjs_anon_sym_BANG, mozjs_anon_sym_TILDE, mozjs_anon_sym_PLUS_PLUS,
      mozjs_anon_sym_DASH_DASH, mozjs_anon_sym_BQUOTE, mozjs_sym_number, mozjs_anon_sym_AT,
      mozjs_sym_preproc, 1425, 44, mozjs_anon_sym_export, mozjs_anon_sym_default,
      mozjs_anon_sym_import, mozjs_anon_sym_with, mozjs_anon_sym_var, mozjs_anon_sym_let,
      mozjs_anon_sym_const, mozjs_anon_sym_using, mozjs_anon_sym_await, mozjs_anon_sym_else,
      mozjs_anon_sym_if, mozjs_anon_sym_switch, mozjs_anon_sym_for, mozjs_anon_sym_while,
      mozjs_anon_sym_do, mozjs_anon_sym_try, mozjs_anon_sym_break, mozjs_anon_sym_continue,
      mozjs_anon_sym_debugger, mozjs_anon_sym_return, mozjs_anon_sym_throw, mozjs_anon_sym_case,
      mozjs_anon_sym_yield, mozjs_anon_sym_class, mozjs_anon_sym_async, mozjs_anon_sym_function,
      mozjs_anon_sym_new, mozjs_anon_sym_PLUS, mozjs_anon_sym_DASH, mozjs_anon_sym_SLASH,
      mozjs_anon_sym_typeof, mozjs_anon_sym_void, mozjs_anon_sym_delete, mozjs_sym_identifier,
      mozjs_sym_private_property_identifier, mozjs_sym_this, mozjs_sym_super, mozjs_sym_true,
      mozjs_sym_false, mozjs_sym_null, mozjs_sym_undefined, mozjs_anon_sym_static,
      mozjs_anon_sym_get, mozjs_anon_sym_set]"

definition mozjs_small_run_7080 :: "nat list" where
  "mozjs_small_run_7080 =
    [13, 471, 1, mozjs_anon_sym_EQ, 534, 1, mozjs_anon_sym_EQ_GT, 546, 1, mozjs_anon_sym_of, 548,
      1, mozjs_anon_sym_in, 1104, 1, mozjs_anon_sym_LPAREN, 1107, 1, mozjs_anon_sym_function,
      1127, 1, mozjs_sym_identifier, 1832, 1, mozjs_sym_formal_parameters, 5, 2,
      mozjs_sym_html_comment, mozjs_sym_comment, 1129, 7, mozjs_anon_sym_export,
      mozjs_anon_sym_let, mozjs_anon_sym_await, mozjs_anon_sym_async, mozjs_anon_sym_static,
      mozjs_anon_sym_get, mozjs_anon_sym_set, 311, 11, mozjs_sym__ternary_qmark,
      mozjs_anon_sym_LBRACK, mozjs_anon_sym_DOT, mozjs_sym_optional_chain, mozjs_anon_sym_LT_EQ,
      mozjs_anon_sym_EQ_EQ_EQ, mozjs_anon_sym_BANG_EQ_EQ, mozjs_anon_sym_GT_EQ,
      mozjs_anon_sym_PLUS_PLUS, mozjs_anon_sym_DASH_DASH, mozjs_anon_sym_BQUOTE, 344, 15,
      mozjs_anon_sym_PLUS_EQ, mozjs_anon_sym_DASH_EQ, mozjs_anon_sym_STAR_EQ,
      mozjs_anon_sym_SLASH_EQ, mozjs_anon_sym_PERCENT_EQ, mozjs_anon_sym_CARET_EQ,
      mozjs_anon_sym_AMP_EQ, mozjs_anon_sym_PIPE_EQ, mozjs_anon_sym_GT_GT_EQ,
      mozjs_anon_sym_GT_GT_GT_EQ, mozjs_anon_sym_LT_LT_EQ, mozjs_anon_sym_STAR_STAR_EQ,
      mozjs_anon_sym_AMP_AMP_EQ, mozjs_anon_sym_PIPE_PIPE_EQ, mozjs_anon_sym_QMARK_QMARK_EQ, 307,
      20, mozjs_anon_sym_STAR, mozjs_anon_sym_LT, mozjs_anon_sym_GT, mozjs_anon_sym_AMP_AMP,
      mozjs_anon_sym_PIPE_PIPE, mozjs_anon_sym_GT_GT, mozjs_anon_sym_GT_GT_GT,
      mozjs_anon_sym_LT_LT, mozjs_anon_sym_AMP, mozjs_anon_sym_CARET, mozjs_anon_sym_PIPE,
      mozjs_anon_sym_PLUS, mozjs_anon_sym_DASH, mozjs_anon_sym_SLASH, mozjs_anon_sym_PERCENT,
      mozjs_anon_sym_STAR_STAR, mozjs_anon_sym_EQ_EQ, mozjs_anon_sym_BANG_EQ,
      mozjs_anon_sym_QMARK_QMARK, mozjs_anon_sym_instanceof]"

definition mozjs_small_run_7170 :: "nat list" where
  "mozjs_small_run_7170 =
    [3, 5, 2, mozjs_sym_html_comment, mozjs_sym_comment, 1427, 17, ts_builtin_sym_end,
      mozjs_anon_sym_LBRACE, mozjs_anon_sym_RBRACE, mozjs_anon_sym_LPAREN, mozjs_anon_sym_SEMI,
      mozjs_anon_sym_LBRACK, mozjs_anon_sym_LT, mozjs_anon_sym_DQUOTE, mozjs_anon_sym_SQUOTE,
      mozjs_anon_sym_BANG, mozjs_anon_sym_TILDE, mozjs_anon_sym_PLUS_PLUS,
      mozjs_anon_sym_DASH_DASH, mozjs_anon_sym_BQUOTE, mozjs_sym_number, mozjs_anon_sym_AT,
      mozjs_sym_preproc, 1429, 44, mozjs_anon_sym_export, mozjs_anon_sym_default,
      mozjs_anon_sym_import, mozjs_anon_sym_with, mozjs_anon_sym_var, mozjs_anon_sym_let,
      mozjs_anon_sym_const, mozjs_anon_sym_using, mozjs_anon_sym_await, mozjs_anon_sym_else,
      mozjs_anon_sym_if, mozjs_anon_sym_switch, mozjs_anon_sym_for, mozjs_anon_sym_while,
      mozjs_anon_sym_do, mozjs_anon_sym_try, mozjs_anon_sym_break, mozjs_anon_sym_continue,
      mozjs_anon_sym_debugger, mozjs_anon_sym_return, mozjs_anon_sym_throw, mozjs_anon_sym_case,
      mozjs_anon_sym_yield, mozjs_anon_sym_class, mozjs_anon_sym_async, mozjs_anon_sym_function,
      mozjs_anon_sym_new, mozjs_anon_sym_PLUS, mozjs_anon_sym_DASH, mozjs_anon_sym_SLASH,
      mozjs_anon_sym_typeof, mozjs_anon_sym_void, mozjs_anon_sym_delete, mozjs_sym_identifier,
      mozjs_sym_private_property_identifier, mozjs_sym_this, mozjs_sym_super, mozjs_sym_true,
      mozjs_sym_false, mozjs_sym_null, mozjs_sym_undefined, mozjs_anon_sym_static,
      mozjs_anon_sym_get, mozjs_anon_sym_set]"

definition mozjs_small_run_7240 :: "nat list" where
  "mozjs_small_run_7240 =
    [13, 399, 1, mozjs_anon_sym_EQ, 417, 1, mozjs_anon_sym_EQ_GT, 548, 1, mozjs_anon_sym_in,
      1121, 1, mozjs_anon_sym_LBRACE, 1125, 1, mozjs_anon_sym_LBRACK, 1431, 1,
      mozjs_sym_identifier, 1433, 1, mozjs_anon_sym_of, 1391, 1, mozjs_sym_variable_declarator,
      5, 2, mozjs_sym_html_comment, mozjs_sym_comment, 1212, 3, mozjs_sym_object_pattern,
      mozjs_sym_array_pattern, mozjs_sym__destructuring_pattern, 311, 13,
      mozjs_sym__ternary_qmark, mozjs_anon_sym_COMMA, mozjs_anon_sym_LPAREN, mozjs_anon_sym_SEMI,
      mozjs_anon_sym_DOT, mozjs_sym_optional_chain, mozjs_anon_sym_LT_EQ,
      mozjs_anon_sym_EQ_EQ_EQ, mozjs_anon_sym_BANG_EQ_EQ, mozjs_anon_sym_GT_EQ,
      mozjs_anon_sym_PLUS_PLUS, mozjs_anon_sym_DASH_DASH, mozjs_anon_sym_BQUOTE, 344, 15,
      mozjs_anon_sym_PLUS_EQ, mozjs_anon_sym_DASH_EQ, mozjs_anon_sym_STAR_EQ,
      mozjs_anon_sym_SLASH_EQ, mozjs_anon_sym_PERCENT_EQ, mozjs_anon_sym_CARET_EQ,
      mozjs_anon_sym_AMP_EQ, mozjs_anon_sym_PIPE_EQ, mozjs_anon_sym_GT_GT_EQ,
      mozjs_anon_sym_GT_GT_GT_EQ, mozjs_anon_sym_LT_LT_EQ, mozjs_anon_sym_STAR_STAR_EQ,
      mozjs_anon_sym_AMP_AMP_EQ, mozjs_anon_sym_PIPE_PIPE_EQ, mozjs_anon_sym_QMARK_QMARK_EQ, 307,
      20, mozjs_anon_sym_STAR, mozjs_anon_sym_LT, mozjs_anon_sym_GT, mozjs_anon_sym_AMP_AMP,
      mozjs_anon_sym_PIPE_PIPE, mozjs_anon_sym_GT_GT, mozjs_anon_sym_GT_GT_GT,
      mozjs_anon_sym_LT_LT, mozjs_anon_sym_AMP, mozjs_anon_sym_CARET, mozjs_anon_sym_PIPE,
      mozjs_anon_sym_PLUS, mozjs_anon_sym_DASH, mozjs_anon_sym_SLASH, mozjs_anon_sym_PERCENT,
      mozjs_anon_sym_STAR_STAR, mozjs_anon_sym_EQ_EQ, mozjs_anon_sym_BANG_EQ,
      mozjs_anon_sym_QMARK_QMARK, mozjs_anon_sym_instanceof]"

definition mozjs_small_run_7328 :: "nat list" where
  "mozjs_small_run_7328 =
    [12, 342, 1, mozjs_anon_sym_EQ_GT, 499, 1, mozjs_anon_sym_EQ, 1119, 1, mozjs_sym_identifier,
      1121, 1, mozjs_anon_sym_LBRACE, 1123, 1, mozjs_anon_sym_of, 1125, 1, mozjs_anon_sym_LBRACK,
      1337, 1, mozjs_sym_variable_declarator, 5, 2, mozjs_sym_html_comment, mozjs_sym_comment,
      1283, 3, mozjs_sym_object_pattern, mozjs_sym_array_pattern,
      mozjs_sym__destructuring_pattern, 311, 13, mozjs_sym__automatic_semicolon,
      mozjs_sym__ternary_qmark, mozjs_anon_sym_LPAREN, mozjs_anon_sym_SEMI, mozjs_anon_sym_DOT,
      mozjs_sym_optional_chain, mozjs_anon_sym_LT_EQ, mozjs_anon_sym_EQ_EQ_EQ,
      mozjs_anon_sym_BANG_EQ_EQ, mozjs_anon_sym_GT_EQ, mozjs_anon_sym_PLUS_PLUS,
      mozjs_anon_sym_DASH_DASH, mozjs_anon_sym_BQUOTE, 344, 15, mozjs_anon_sym_PLUS_EQ,
      mozjs_anon_sym_DASH_EQ, mozjs_anon_sym_STAR_EQ, mozjs_anon_sym_SLASH_EQ,
      mozjs_anon_sym_PERCENT_EQ, mozjs_anon_sym_CARET_EQ, mozjs_anon_sym_AMP_EQ,
      mozjs_anon_sym_PIPE_EQ, mozjs_anon_sym_GT_GT_EQ, mozjs_anon_sym_GT_GT_GT_EQ,
      mozjs_anon_sym_LT_LT_EQ, mozjs_anon_sym_STAR_STAR_EQ, mozjs_anon_sym_AMP_AMP_EQ,
      mozjs_anon_sym_PIPE_PIPE_EQ, mozjs_anon_sym_QMARK_QMARK_EQ, 307, 21, mozjs_anon_sym_STAR,
      mozjs_anon_sym_in, mozjs_anon_sym_LT, mozjs_anon_sym_GT, mozjs_anon_sym_AMP_AMP,
      mozjs_anon_sym_PIPE_PIPE, mozjs_anon_sym_GT_GT, mozjs_anon_sym_GT_GT_GT,
      mozjs_anon_sym_LT_LT, mozjs_anon_sym_AMP, mozjs_anon_sym_CARET, mozjs_anon_sym_PIPE,
      mozjs_anon_sym_PLUS, mozjs_anon_sym_DASH, mozjs_anon_sym_SLASH, mozjs_anon_sym_PERCENT,
      mozjs_anon_sym_STAR_STAR, mozjs_anon_sym_EQ_EQ, mozjs_anon_sym_BANG_EQ,
      mozjs_anon_sym_QMARK_QMARK, mozjs_anon_sym_instanceof]"

definition mozjs_small_run_7414 :: "nat list" where
  "mozjs_small_run_7414 =
    [3, 5, 2, mozjs_sym_html_comment, mozjs_sym_comment, 1159, 21, mozjs_anon_sym_STAR,
      mozjs_anon_sym_in, mozjs_anon_sym_EQ, mozjs_anon_sym_LT, mozjs_anon_sym_GT,
      mozjs_anon_sym_AMP_AMP, mozjs_anon_sym_PIPE_PIPE, mozjs_anon_sym_GT_GT,
      mozjs_anon_sym_GT_GT_GT, mozjs_anon_sym_LT_LT, mozjs_anon_sym_AMP, mozjs_anon_sym_CARET,
      mozjs_anon_sym_PIPE, mozjs_anon_sym_PLUS, mozjs_anon_sym_DASH, mozjs_anon_sym_SLASH,
      mozjs_anon_sym_PERCENT, mozjs_anon_sym_STAR_STAR, mozjs_anon_sym_EQ_EQ,
      mozjs_anon_sym_BANG_EQ, mozjs_anon_sym_QMARK_QMARK, 1157, 36, mozjs_sym__ternary_qmark,
      mozjs_anon_sym_LBRACE, mozjs_anon_sym_COMMA, mozjs_anon_sym_RBRACE, mozjs_anon_sym_of,
      mozjs_anon_sym_LPAREN, mozjs_anon_sym_SEMI, mozjs_anon_sym_RPAREN, mozjs_anon_sym_COLON,
      mozjs_anon_sym_LBRACK, mozjs_anon_sym_RBRACK, mozjs_anon_sym_DOT, mozjs_sym_optional_chain,
      mozjs_anon_sym_PLUS_EQ, mozjs_anon_sym_DASH_EQ, mozjs_anon_sym_STAR_EQ,
      mozjs_anon_sym_SLASH_EQ, mozjs_anon_sym_PERCENT_EQ, mozjs_anon_sym_CARET_EQ,
      mozjs_anon_sym_AMP_EQ, mozjs_anon_sym_PIPE_EQ, mozjs_anon_sym_GT_GT_EQ,
      mozjs_anon_sym_GT_GT_GT_EQ, mozjs_anon_sym_LT_LT_EQ, mozjs_anon_sym_STAR_STAR_EQ,
      mozjs_anon_sym_AMP_AMP_EQ, mozjs_anon_sym_PIPE_PIPE_EQ, mozjs_anon_sym_QMARK_QMARK_EQ,
      mozjs_anon_sym_LT_EQ, mozjs_anon_sym_EQ_EQ_EQ, mozjs_anon_sym_BANG_EQ_EQ,
      mozjs_anon_sym_GT_EQ, mozjs_anon_sym_instanceof, mozjs_anon_sym_PLUS_PLUS,
      mozjs_anon_sym_DASH_DASH, mozjs_anon_sym_BQUOTE]"

definition mozjs_small_run_7480 :: "nat list" where
  "mozjs_small_run_7480 =
    [11, 325, 1, mozjs_anon_sym_COLON, 374, 1, mozjs_anon_sym_RBRACE, 1439, 1,
      mozjs_anon_sym_LPAREN, 1442, 1, mozjs_anon_sym_EQ, 1444, 1, mozjs_anon_sym_EQ_GT, 1414, 1,
      mozjs_aux_sym_object_pattern_repeat1, 1442, 1, mozjs_aux_sym_object_repeat1, 5, 2,
      mozjs_sym_html_comment, mozjs_sym_comment, 1437, 15, mozjs_sym__automatic_semicolon,
      mozjs_sym__ternary_qmark, mozjs_anon_sym_COMMA, mozjs_anon_sym_SEMI, mozjs_anon_sym_LBRACK,
      mozjs_anon_sym_DOT, mozjs_sym_optional_chain, mozjs_anon_sym_LT_EQ,
      mozjs_anon_sym_EQ_EQ_EQ, mozjs_anon_sym_BANG_EQ_EQ, mozjs_anon_sym_GT_EQ,
      mozjs_anon_sym_instanceof, mozjs_anon_sym_PLUS_PLUS, mozjs_anon_sym_DASH_DASH,
      mozjs_anon_sym_BQUOTE, 1446, 15, mozjs_anon_sym_PLUS_EQ, mozjs_anon_sym_DASH_EQ,
      mozjs_anon_sym_STAR_EQ, mozjs_anon_sym_SLASH_EQ, mozjs_anon_sym_PERCENT_EQ,
      mozjs_anon_sym_CARET_EQ, mozjs_anon_sym_AMP_EQ, mozjs_anon_sym_PIPE_EQ,
      mozjs_anon_sym_GT_GT_EQ, mozjs_anon_sym_GT_GT_GT_EQ, mozjs_anon_sym_LT_LT_EQ,
      mozjs_anon_sym_STAR_STAR_EQ, mozjs_anon_sym_AMP_AMP_EQ, mozjs_anon_sym_PIPE_PIPE_EQ,
      mozjs_anon_sym_QMARK_QMARK_EQ, 1435, 20, mozjs_anon_sym_STAR, mozjs_anon_sym_in,
      mozjs_anon_sym_LT, mozjs_anon_sym_GT, mozjs_anon_sym_AMP_AMP, mozjs_anon_sym_PIPE_PIPE,
      mozjs_anon_sym_GT_GT, mozjs_anon_sym_GT_GT_GT, mozjs_anon_sym_LT_LT, mozjs_anon_sym_AMP,
      mozjs_anon_sym_CARET, mozjs_anon_sym_PIPE, mozjs_anon_sym_PLUS, mozjs_anon_sym_DASH,
      mozjs_anon_sym_SLASH, mozjs_anon_sym_PERCENT, mozjs_anon_sym_STAR_STAR,
      mozjs_anon_sym_EQ_EQ, mozjs_anon_sym_BANG_EQ, mozjs_anon_sym_QMARK_QMARK]"

definition mozjs_small_run_7562 :: "nat list" where
  "mozjs_small_run_7562 =
    [3, 5, 2, mozjs_sym_html_comment, mozjs_sym_comment, 1448, 21, mozjs_anon_sym_STAR,
      mozjs_anon_sym_in, mozjs_anon_sym_EQ, mozjs_anon_sym_LT, mozjs_anon_sym_GT,
      mozjs_anon_sym_AMP_AMP, mozjs_anon_sym_PIPE_PIPE, mozjs_anon_sym_GT_GT,
      mozjs_anon_sym_GT_GT_GT, mozjs_anon_sym_LT_LT, mozjs_anon_sym_AMP, mozjs_anon_sym_CARET,
      mozjs_anon_sym_PIPE, mozjs_anon_sym_PLUS, mozjs_anon_sym_DASH, mozjs_anon_sym_SLASH,
      mozjs_anon_sym_PERCENT, mozjs_anon_sym_STAR_STAR, mozjs_anon_sym_EQ_EQ,
      mozjs_anon_sym_BANG_EQ, mozjs_anon_sym_QMARK_QMARK, 1450, 36, mozjs_sym__ternary_qmark,
      mozjs_anon_sym_LBRACE, mozjs_anon_sym_COMMA, mozjs_anon_sym_RBRACE, mozjs_anon_sym_of,
      mozjs_anon_sym_LPAREN, mozjs_anon_sym_SEMI, mozjs_anon_sym_RPAREN, mozjs_anon_sym_COLON,
      mozjs_anon_sym_LBRACK, mozjs_anon_sym_RBRACK, mozjs_anon_sym_DOT, mozjs_sym_optional_chain,
      mozjs_anon_sym_PLUS_EQ, mozjs_anon_sym_DASH_EQ, mozjs_anon_sym_STAR_EQ,
      mozjs_anon_sym_SLASH_EQ, mozjs_anon_sym_PERCENT_EQ, mozjs_anon_sym_CARET_EQ,
      mozjs_anon_sym_AMP_EQ, mozjs_anon_sym_PIPE_EQ, mozjs_anon_sym_GT_GT_EQ,
      mozjs_anon_sym_GT_GT_GT_EQ, mozjs_anon_sym_LT_LT_EQ, mozjs_anon_sym_STAR_STAR_EQ,
      mozjs_anon_sym_AMP_AMP_EQ, mozjs_anon_sym_PIPE_PIPE_EQ, mozjs_anon_sym_QMARK_QMARK_EQ,
      mozjs_anon_sym_LT_EQ, mozjs_anon_sym_EQ_EQ_EQ, mozjs_anon_sym_BANG_EQ_EQ,
      mozjs_anon_sym_GT_EQ, mozjs_anon_sym_instanceof, mozjs_anon_sym_PLUS_PLUS,
      mozjs_anon_sym_DASH_DASH, mozjs_anon_sym_BQUOTE]"

definition mozjs_small_run_7628 :: "nat list" where
  "mozjs_small_run_7628 =
    [3, 5, 2, mozjs_sym_html_comment, mozjs_sym_comment, 1452, 21, mozjs_anon_sym_STAR,
      mozjs_anon_sym_in, mozjs_anon_sym_EQ, mozjs_anon_sym_LT, mozjs_anon_sym_GT,
      mozjs_anon_sym_AMP_AMP, mozjs_anon_sym_PIPE_PIPE, mozjs_anon_sym_GT_GT,
      mozjs_anon_sym_GT_GT_GT, mozjs_anon_sym_LT_LT, mozjs_anon_sym_AMP, mozjs_anon_sym_CARET,
      mozjs_anon_sym_PIPE, mozjs_anon_sym_PLUS, mozjs_anon_sym_DASH, mozjs_anon_sym_SLASH,
      mozjs_anon_sym_PERCENT, mozjs_anon_sym_STAR_STAR, mozjs_anon_sym_EQ_EQ,
      mozjs_anon_sym_BANG_EQ, mozjs_anon_sym_QMARK_QMARK, 1454, 36, mozjs_sym__ternary_qmark,
      mozjs_anon_sym_LBRACE, mozjs_anon_sym_COMMA, mozjs_anon_sym_RBRACE, mozjs_anon_sym_of,
      mozjs_anon_sym_LPAREN, mozjs_anon_sym_SEMI, mozjs_anon_sym_RPAREN, mozjs_anon_sym_COLON,
      mozjs_anon_sym_LBRACK, mozjs_anon_sym_RBRACK, mozjs_anon_sym_DOT, mozjs_sym_optional_chain,
      mozjs_anon_sym_PLUS_EQ, mozjs_anon_sym_DASH_EQ, mozjs_anon_sym_STAR_EQ,
      mozjs_anon_sym_SLASH_EQ, mozjs_anon_sym_PERCENT_EQ, mozjs_anon_sym_CARET_EQ,
      mozjs_anon_sym_AMP_EQ, mozjs_anon_sym_PIPE_EQ, mozjs_anon_sym_GT_GT_EQ,
      mozjs_anon_sym_GT_GT_GT_EQ, mozjs_anon_sym_LT_LT_EQ, mozjs_anon_sym_STAR_STAR_EQ,
      mozjs_anon_sym_AMP_AMP_EQ, mozjs_anon_sym_PIPE_PIPE_EQ, mozjs_anon_sym_QMARK_QMARK_EQ,
      mozjs_anon_sym_LT_EQ, mozjs_anon_sym_EQ_EQ_EQ, mozjs_anon_sym_BANG_EQ_EQ,
      mozjs_anon_sym_GT_EQ, mozjs_anon_sym_instanceof, mozjs_anon_sym_PLUS_PLUS,
      mozjs_anon_sym_DASH_DASH, mozjs_anon_sym_BQUOTE]"

definition mozjs_small_run_7694 :: "nat list" where
  "mozjs_small_run_7694 =
    [3, 5, 2, mozjs_sym_html_comment, mozjs_sym_comment, 1456, 21, mozjs_anon_sym_STAR,
      mozjs_anon_sym_in, mozjs_anon_sym_EQ, mozjs_anon_sym_LT, mozjs_anon_sym_GT,
      mozjs_anon_sym_AMP_AMP, mozjs_anon_sym_PIPE_PIPE, mozjs_anon_sym_GT_GT,
      mozjs_anon_sym_GT_GT_GT, mozjs_anon_sym_LT_LT, mozjs_anon_sym_AMP, mozjs_anon_sym_CARET,
      mozjs_anon_sym_PIPE, mozjs_anon_sym_PLUS, mozjs_anon_sym_DASH, mozjs_anon_sym_SLASH,
      mozjs_anon_sym_PERCENT, mozjs_anon_sym_STAR_STAR, mozjs_anon_sym_EQ_EQ,
      mozjs_anon_sym_BANG_EQ, mozjs_anon_sym_QMARK_QMARK, 1458, 36, mozjs_sym__ternary_qmark,
      mozjs_anon_sym_LBRACE, mozjs_anon_sym_COMMA, mozjs_anon_sym_RBRACE, mozjs_anon_sym_of,
      mozjs_anon_sym_LPAREN, mozjs_anon_sym_SEMI, mozjs_anon_sym_RPAREN, mozjs_anon_sym_COLON,
      mozjs_anon_sym_LBRACK, mozjs_anon_sym_RBRACK, mozjs_anon_sym_DOT, mozjs_sym_optional_chain,
      mozjs_anon_sym_PLUS_EQ, mozjs_anon_sym_DASH_EQ, mozjs_anon_sym_STAR_EQ,
      mozjs_anon_sym_SLASH_EQ, mozjs_anon_sym_PERCENT_EQ, mozjs_anon_sym_CARET_EQ,
      mozjs_anon_sym_AMP_EQ, mozjs_anon_sym_PIPE_EQ, mozjs_anon_sym_GT_GT_EQ,
      mozjs_anon_sym_GT_GT_GT_EQ, mozjs_anon_sym_LT_LT_EQ, mozjs_anon_sym_STAR_STAR_EQ,
      mozjs_anon_sym_AMP_AMP_EQ, mozjs_anon_sym_PIPE_PIPE_EQ, mozjs_anon_sym_QMARK_QMARK_EQ,
      mozjs_anon_sym_LT_EQ, mozjs_anon_sym_EQ_EQ_EQ, mozjs_anon_sym_BANG_EQ_EQ,
      mozjs_anon_sym_GT_EQ, mozjs_anon_sym_instanceof, mozjs_anon_sym_PLUS_PLUS,
      mozjs_anon_sym_DASH_DASH, mozjs_anon_sym_BQUOTE]"

definition mozjs_small_run_7760 :: "nat list" where
  "mozjs_small_run_7760 =
    [3, 5, 2, mozjs_sym_html_comment, mozjs_sym_comment, 1460, 21, mozjs_anon_sym_STAR,
      mozjs_anon_sym_in, mozjs_anon_sym_EQ, mozjs_anon_sym_LT, mozjs_anon_sym_GT,
      mozjs_anon_sym_AMP_AMP, mozjs_anon_sym_PIPE_PIPE, mozjs_anon_sym_GT_GT,
      mozjs_anon_sym_GT_GT_GT, mozjs_anon_sym_LT_LT, mozjs_anon_sym_AMP, mozjs_anon_sym_CARET,
      mozjs_anon_sym_PIPE, mozjs_anon_sym_PLUS, mozjs_anon_sym_DASH, mozjs_anon_sym_SLASH,
      mozjs_anon_sym_PERCENT, mozjs_anon_sym_STAR_STAR, mozjs_anon_sym_EQ_EQ,
      mozjs_anon_sym_BANG_EQ, mozjs_anon_sym_QMARK_QMARK, 1462, 36, mozjs_sym__ternary_qmark,
      mozjs_anon_sym_LBRACE, mozjs_anon_sym_COMMA, mozjs_anon_sym_RBRACE, mozjs_anon_sym_of,
      mozjs_anon_sym_LPAREN, mozjs_anon_sym_SEMI, mozjs_anon_sym_RPAREN, mozjs_anon_sym_COLON,
      mozjs_anon_sym_LBRACK, mozjs_anon_sym_RBRACK, mozjs_anon_sym_DOT, mozjs_sym_optional_chain,
      mozjs_anon_sym_PLUS_EQ, mozjs_anon_sym_DASH_EQ, mozjs_anon_sym_STAR_EQ,
      mozjs_anon_sym_SLASH_EQ, mozjs_anon_sym_PERCENT_EQ, mozjs_anon_sym_CARET_EQ,
      mozjs_anon_sym_AMP_EQ, mozjs_anon_sym_PIPE_EQ, mozjs_anon_sym_GT_GT_EQ,
      mozjs_anon_sym_GT_GT_GT_EQ, mozjs_anon_sym_LT_LT_EQ, mozjs_anon_sym_STAR_STAR_EQ,
      mozjs_anon_sym_AMP_AMP_EQ, mozjs_anon_sym_PIPE_PIPE_EQ, mozjs_anon_sym_QMARK_QMARK_EQ,
      mozjs_anon_sym_LT_EQ, mozjs_anon_sym_EQ_EQ_EQ, mozjs_anon_sym_BANG_EQ_EQ,
      mozjs_anon_sym_GT_EQ, mozjs_anon_sym_instanceof, mozjs_anon_sym_PLUS_PLUS,
      mozjs_anon_sym_DASH_DASH, mozjs_anon_sym_BQUOTE]"

definition mozjs_small_run_7826 :: "nat list" where
  "mozjs_small_run_7826 =
    [11, 313, 1, mozjs_anon_sym_RBRACE, 325, 1, mozjs_anon_sym_COLON, 1439, 1,
      mozjs_anon_sym_LPAREN, 1442, 1, mozjs_anon_sym_EQ, 1444, 1, mozjs_anon_sym_EQ_GT, 1411, 1,
      mozjs_aux_sym_object_repeat1, 1414, 1, mozjs_aux_sym_object_pattern_repeat1, 5, 2,
      mozjs_sym_html_comment, mozjs_sym_comment, 1437, 15, mozjs_sym__automatic_semicolon,
      mozjs_sym__ternary_qmark, mozjs_anon_sym_COMMA, mozjs_anon_sym_SEMI, mozjs_anon_sym_LBRACK,
      mozjs_anon_sym_DOT, mozjs_sym_optional_chain, mozjs_anon_sym_LT_EQ,
      mozjs_anon_sym_EQ_EQ_EQ, mozjs_anon_sym_BANG_EQ_EQ, mozjs_anon_sym_GT_EQ,
      mozjs_anon_sym_instanceof, mozjs_anon_sym_PLUS_PLUS, mozjs_anon_sym_DASH_DASH,
      mozjs_anon_sym_BQUOTE, 1446, 15, mozjs_anon_sym_PLUS_EQ, mozjs_anon_sym_DASH_EQ,
      mozjs_anon_sym_STAR_EQ, mozjs_anon_sym_SLASH_EQ, mozjs_anon_sym_PERCENT_EQ,
      mozjs_anon_sym_CARET_EQ, mozjs_anon_sym_AMP_EQ, mozjs_anon_sym_PIPE_EQ,
      mozjs_anon_sym_GT_GT_EQ, mozjs_anon_sym_GT_GT_GT_EQ, mozjs_anon_sym_LT_LT_EQ,
      mozjs_anon_sym_STAR_STAR_EQ, mozjs_anon_sym_AMP_AMP_EQ, mozjs_anon_sym_PIPE_PIPE_EQ,
      mozjs_anon_sym_QMARK_QMARK_EQ, 1435, 20, mozjs_anon_sym_STAR, mozjs_anon_sym_in,
      mozjs_anon_sym_LT, mozjs_anon_sym_GT, mozjs_anon_sym_AMP_AMP, mozjs_anon_sym_PIPE_PIPE,
      mozjs_anon_sym_GT_GT, mozjs_anon_sym_GT_GT_GT, mozjs_anon_sym_LT_LT, mozjs_anon_sym_AMP,
      mozjs_anon_sym_CARET, mozjs_anon_sym_PIPE, mozjs_anon_sym_PLUS, mozjs_anon_sym_DASH,
      mozjs_anon_sym_SLASH, mozjs_anon_sym_PERCENT, mozjs_anon_sym_STAR_STAR,
      mozjs_anon_sym_EQ_EQ, mozjs_anon_sym_BANG_EQ, mozjs_anon_sym_QMARK_QMARK]"

definition mozjs_small_run_7908 :: "nat list" where
  "mozjs_small_run_7908 =
    [3, 5, 2, mozjs_sym_html_comment, mozjs_sym_comment, 1464, 21, mozjs_anon_sym_STAR,
      mozjs_anon_sym_in, mozjs_anon_sym_EQ, mozjs_anon_sym_LT, mozjs_anon_sym_GT,
      mozjs_anon_sym_AMP_AMP, mozjs_anon_sym_PIPE_PIPE, mozjs_anon_sym_GT_GT,
      mozjs_anon_sym_GT_GT_GT, mozjs_anon_sym_LT_LT, mozjs_anon_sym_AMP, mozjs_anon_sym_CARET,
      mozjs_anon_sym_PIPE, mozjs_anon_sym_PLUS, mozjs_anon_sym_DASH, mozjs_anon_sym_SLASH,
      mozjs_anon_sym_PERCENT, mozjs_anon_sym_STAR_STAR, mozjs_anon_sym_EQ_EQ,
      mozjs_anon_sym_BANG_EQ, mozjs_anon_sym_QMARK_QMARK, 1466, 36, mozjs_sym__ternary_qmark,
      mozjs_anon_sym_LBRACE, mozjs_anon_sym_COMMA, mozjs_anon_sym_RBRACE, mozjs_anon_sym_of,
      mozjs_anon_sym_LPAREN, mozjs_anon_sym_SEMI, mozjs_anon_sym_RPAREN, mozjs_anon_sym_COLON,
      mozjs_anon_sym_LBRACK, mozjs_anon_sym_RBRACK, mozjs_anon_sym_DOT, mozjs_sym_optional_chain,
      mozjs_anon_sym_PLUS_EQ, mozjs_anon_sym_DASH_EQ, mozjs_anon_sym_STAR_EQ,
      mozjs_anon_sym_SLASH_EQ, mozjs_anon_sym_PERCENT_EQ, mozjs_anon_sym_CARET_EQ,
      mozjs_anon_sym_AMP_EQ, mozjs_anon_sym_PIPE_EQ, mozjs_anon_sym_GT_GT_EQ,
      mozjs_anon_sym_GT_GT_GT_EQ, mozjs_anon_sym_LT_LT_EQ, mozjs_anon_sym_STAR_STAR_EQ,
      mozjs_anon_sym_AMP_AMP_EQ, mozjs_anon_sym_PIPE_PIPE_EQ, mozjs_anon_sym_QMARK_QMARK_EQ,
      mozjs_anon_sym_LT_EQ, mozjs_anon_sym_EQ_EQ_EQ, mozjs_anon_sym_BANG_EQ_EQ,
      mozjs_anon_sym_GT_EQ, mozjs_anon_sym_instanceof, mozjs_anon_sym_PLUS_PLUS,
      mozjs_anon_sym_DASH_DASH, mozjs_anon_sym_BQUOTE]"

definition mozjs_small_run_7974 :: "nat list" where
  "mozjs_small_run_7974 =
    [3, 5, 2, mozjs_sym_html_comment, mozjs_sym_comment, 1468, 21, mozjs_anon_sym_STAR,
      mozjs_anon_sym_in, mozjs_anon_sym_EQ, mozjs_anon_sym_LT, mozjs_anon_sym_GT,
      mozjs_anon_sym_AMP_AMP, mozjs_anon_sym_PIPE_PIPE, mozjs_anon_sym_GT_GT,
      mozjs_anon_sym_GT_GT_GT, mozjs_anon_sym_LT_LT, mozjs_anon_sym_AMP, mozjs_anon_sym_CARET,
      mozjs_anon_sym_PIPE, mozjs_anon_sym_PLUS, mozjs_anon_sym_DASH, mozjs_anon_sym_SLASH,
      mozjs_anon_sym_PERCENT, mozjs_anon_sym_STAR_STAR, mozjs_anon_sym_EQ_EQ,
      mozjs_anon_sym_BANG_EQ, mozjs_anon_sym_QMARK_QMARK, 1470, 36, mozjs_sym__ternary_qmark,
      mozjs_anon_sym_LBRACE, mozjs_anon_sym_COMMA, mozjs_anon_sym_RBRACE, mozjs_anon_sym_of,
      mozjs_anon_sym_LPAREN, mozjs_anon_sym_SEMI, mozjs_anon_sym_RPAREN, mozjs_anon_sym_COLON,
      mozjs_anon_sym_LBRACK, mozjs_anon_sym_RBRACK, mozjs_anon_sym_DOT, mozjs_sym_optional_chain,
      mozjs_anon_sym_PLUS_EQ, mozjs_anon_sym_DASH_EQ, mozjs_anon_sym_STAR_EQ,
      mozjs_anon_sym_SLASH_EQ, mozjs_anon_sym_PERCENT_EQ, mozjs_anon_sym_CARET_EQ,
      mozjs_anon_sym_AMP_EQ, mozjs_anon_sym_PIPE_EQ, mozjs_anon_sym_GT_GT_EQ,
      mozjs_anon_sym_GT_GT_GT_EQ, mozjs_anon_sym_LT_LT_EQ, mozjs_anon_sym_STAR_STAR_EQ,
      mozjs_anon_sym_AMP_AMP_EQ, mozjs_anon_sym_PIPE_PIPE_EQ, mozjs_anon_sym_QMARK_QMARK_EQ,
      mozjs_anon_sym_LT_EQ, mozjs_anon_sym_EQ_EQ_EQ, mozjs_anon_sym_BANG_EQ_EQ,
      mozjs_anon_sym_GT_EQ, mozjs_anon_sym_instanceof, mozjs_anon_sym_PLUS_PLUS,
      mozjs_anon_sym_DASH_DASH, mozjs_anon_sym_BQUOTE]"

definition mozjs_small_run_8040 :: "nat list" where
  "mozjs_small_run_8040 =
    [5, 1472, 1, mozjs_anon_sym_EQ, 5, 2, mozjs_sym_html_comment, mozjs_sym_comment, 1446, 15,
      mozjs_anon_sym_PLUS_EQ, mozjs_anon_sym_DASH_EQ, mozjs_anon_sym_STAR_EQ,
      mozjs_anon_sym_SLASH_EQ, mozjs_anon_sym_PERCENT_EQ, mozjs_anon_sym_CARET_EQ,
      mozjs_anon_sym_AMP_EQ, mozjs_anon_sym_PIPE_EQ, mozjs_anon_sym_GT_GT_EQ,
      mozjs_anon_sym_GT_GT_GT_EQ, mozjs_anon_sym_LT_LT_EQ, mozjs_anon_sym_STAR_STAR_EQ,
      mozjs_anon_sym_AMP_AMP_EQ, mozjs_anon_sym_PIPE_PIPE_EQ, mozjs_anon_sym_QMARK_QMARK_EQ,
      1435, 20, mozjs_anon_sym_STAR, mozjs_anon_sym_in, mozjs_anon_sym_LT, mozjs_anon_sym_GT,
      mozjs_anon_sym_AMP_AMP, mozjs_anon_sym_PIPE_PIPE, mozjs_anon_sym_GT_GT,
      mozjs_anon_sym_GT_GT_GT, mozjs_anon_sym_LT_LT, mozjs_anon_sym_AMP, mozjs_anon_sym_CARET,
      mozjs_anon_sym_PIPE, mozjs_anon_sym_PLUS, mozjs_anon_sym_DASH, mozjs_anon_sym_SLASH,
      mozjs_anon_sym_PERCENT, mozjs_anon_sym_STAR_STAR, mozjs_anon_sym_EQ_EQ,
      mozjs_anon_sym_BANG_EQ, mozjs_anon_sym_QMARK_QMARK, 1437, 21, mozjs_sym__ternary_qmark,
      mozjs_anon_sym_LBRACE, mozjs_anon_sym_COMMA, mozjs_anon_sym_RBRACE, mozjs_anon_sym_of,
      mozjs_anon_sym_LPAREN, mozjs_anon_sym_SEMI, mozjs_anon_sym_RPAREN, mozjs_anon_sym_COLON,
      mozjs_anon_sym_LBRACK, mozjs_anon_sym_RBRACK, mozjs_anon_sym_DOT, mozjs_sym_optional_chain,
      mozjs_anon_sym_LT_EQ, mozjs_anon_sym_EQ_EQ_EQ, mozjs_anon_sym_BANG_EQ_EQ,
      mozjs_anon_sym_GT_EQ, mozjs_anon_sym_instanceof, mozjs_anon_sym_PLUS_PLUS,
      mozjs_anon_sym_DASH_DASH, mozjs_anon_sym_BQUOTE]"

definition mozjs_small_run_8110 :: "nat list" where
  "mozjs_small_run_8110 =
    [11, 325, 1, mozjs_anon_sym_COLON, 372, 1, mozjs_anon_sym_RBRACE, 1439, 1,
      mozjs_anon_sym_LPAREN, 1442, 1, mozjs_anon_sym_EQ, 1444, 1, mozjs_anon_sym_EQ_GT, 1414, 1,
      mozjs_aux_sym_object_pattern_repeat1, 1442, 1, mozjs_aux_sym_object_repeat1, 5, 2,
      mozjs_sym_html_comment, mozjs_sym_comment, 1437, 15, mozjs_sym__automatic_semicolon,
      mozjs_sym__ternary_qmark, mozjs_anon_sym_COMMA, mozjs_anon_sym_SEMI, mozjs_anon_sym_LBRACK,
      mozjs_anon_sym_DOT, mozjs_sym_optional_chain, mozjs_anon_sym_LT_EQ,
      mozjs_anon_sym_EQ_EQ_EQ, mozjs_anon_sym_BANG_EQ_EQ, mozjs_anon_sym_GT_EQ,
      mozjs_anon_sym_instanceof, mozjs_anon_sym_PLUS_PLUS, mozjs_anon_sym_DASH_DASH,
      mozjs_anon_sym_BQUOTE, 1446, 15, mozjs_anon_sym_PLUS_EQ, mozjs_anon_sym_DASH_EQ,
      mozjs_anon_sym_STAR_EQ, mozjs_anon_sym_SLASH_EQ, mozjs_anon_sym_PERCENT_EQ,
      mozjs_anon_sym_CARET_EQ, mozjs_anon_sym_AMP_EQ, mozjs_anon_sym_PIPE_EQ,
      mozjs_anon_sym_GT_GT_EQ, mozjs_anon_sym_GT_GT_GT_EQ, mozjs_anon_sym_LT_LT_EQ,
      mozjs_anon_sym_STAR_STAR_EQ, mozjs_anon_sym_AMP_AMP_EQ, mozjs_anon_sym_PIPE_PIPE_EQ,
      mozjs_anon_sym_QMARK_QMARK_EQ, 1435, 20, mozjs_anon_sym_STAR, mozjs_anon_sym_in,
      mozjs_anon_sym_LT, mozjs_anon_sym_GT, mozjs_anon_sym_AMP_AMP, mozjs_anon_sym_PIPE_PIPE,
      mozjs_anon_sym_GT_GT, mozjs_anon_sym_GT_GT_GT, mozjs_anon_sym_LT_LT, mozjs_anon_sym_AMP,
      mozjs_anon_sym_CARET, mozjs_anon_sym_PIPE, mozjs_anon_sym_PLUS, mozjs_anon_sym_DASH,
      mozjs_anon_sym_SLASH, mozjs_anon_sym_PERCENT, mozjs_anon_sym_STAR_STAR,
      mozjs_anon_sym_EQ_EQ, mozjs_anon_sym_BANG_EQ, mozjs_anon_sym_QMARK_QMARK]"

definition mozjs_small_run_8192 :: "nat list" where
  "mozjs_small_run_8192 =
    [3, 5, 2, mozjs_sym_html_comment, mozjs_sym_comment, 1476, 15, mozjs_anon_sym_LBRACE,
      mozjs_anon_sym_LPAREN, mozjs_anon_sym_SEMI, mozjs_anon_sym_LBRACK, mozjs_anon_sym_LT,
      mozjs_anon_sym_DQUOTE, mozjs_anon_sym_SQUOTE, mozjs_anon_sym_BANG, mozjs_anon_sym_TILDE,
      mozjs_anon_sym_PLUS_PLUS, mozjs_anon_sym_DASH_DASH, mozjs_anon_sym_BQUOTE,
      mozjs_sym_number, mozjs_anon_sym_AT, mozjs_sym_preproc, 1474, 41, mozjs_anon_sym_export,
      mozjs_anon_sym_import, mozjs_anon_sym_with, mozjs_anon_sym_var, mozjs_anon_sym_let,
      mozjs_anon_sym_const, mozjs_anon_sym_using, mozjs_anon_sym_await, mozjs_anon_sym_if,
      mozjs_anon_sym_switch, mozjs_anon_sym_for, mozjs_anon_sym_while, mozjs_anon_sym_do,
      mozjs_anon_sym_try, mozjs_anon_sym_break, mozjs_anon_sym_continue, mozjs_anon_sym_debugger,
      mozjs_anon_sym_return, mozjs_anon_sym_throw, mozjs_anon_sym_yield, mozjs_anon_sym_class,
      mozjs_anon_sym_async, mozjs_anon_sym_function, mozjs_anon_sym_new, mozjs_anon_sym_PLUS,
      mozjs_anon_sym_DASH, mozjs_anon_sym_SLASH, mozjs_anon_sym_typeof, mozjs_anon_sym_void,
      mozjs_anon_sym_delete, mozjs_sym_identifier, mozjs_sym_private_property_identifier,
      mozjs_sym_this, mozjs_sym_super, mozjs_sym_true, mozjs_sym_false, mozjs_sym_null,
      mozjs_sym_undefined, mozjs_anon_sym_static, mozjs_anon_sym_get, mozjs_anon_sym_set]"

definition mozjs_small_run_8257 :: "nat list" where
  "mozjs_small_run_8257 =
    [6, 399, 1, mozjs_anon_sym_EQ, 417, 1, mozjs_anon_sym_EQ_GT, 5, 2, mozjs_sym_html_comment,
      mozjs_sym_comment, 344, 15, mozjs_anon_sym_PLUS_EQ, mozjs_anon_sym_DASH_EQ,
      mozjs_anon_sym_STAR_EQ, mozjs_anon_sym_SLASH_EQ, mozjs_anon_sym_PERCENT_EQ,
      mozjs_anon_sym_CARET_EQ, mozjs_anon_sym_AMP_EQ, mozjs_anon_sym_PIPE_EQ,
      mozjs_anon_sym_GT_GT_EQ, mozjs_anon_sym_GT_GT_GT_EQ, mozjs_anon_sym_LT_LT_EQ,
      mozjs_anon_sym_STAR_STAR_EQ, mozjs_anon_sym_AMP_AMP_EQ, mozjs_anon_sym_PIPE_PIPE_EQ,
      mozjs_anon_sym_QMARK_QMARK_EQ, 311, 19, mozjs_sym__ternary_qmark, mozjs_anon_sym_COMMA,
      mozjs_anon_sym_RBRACE, mozjs_anon_sym_LPAREN, mozjs_anon_sym_SEMI, mozjs_anon_sym_RPAREN,
      mozjs_anon_sym_COLON, mozjs_anon_sym_LBRACK, mozjs_anon_sym_RBRACK, mozjs_anon_sym_DOT,
      mozjs_sym_optional_chain, mozjs_anon_sym_LT_EQ, mozjs_anon_sym_EQ_EQ_EQ,
      mozjs_anon_sym_BANG_EQ_EQ, mozjs_anon_sym_GT_EQ, mozjs_anon_sym_instanceof,
      mozjs_anon_sym_PLUS_PLUS, mozjs_anon_sym_DASH_DASH, mozjs_anon_sym_BQUOTE, 307, 20,
      mozjs_anon_sym_STAR, mozjs_anon_sym_in, mozjs_anon_sym_LT, mozjs_anon_sym_GT,
      mozjs_anon_sym_AMP_AMP, mozjs_anon_sym_PIPE_PIPE, mozjs_anon_sym_GT_GT,
      mozjs_anon_sym_GT_GT_GT, mozjs_anon_sym_LT_LT, mozjs_anon_sym_AMP, mozjs_anon_sym_CARET,
      mozjs_anon_sym_PIPE, mozjs_anon_sym_PLUS, mozjs_anon_sym_DASH, mozjs_anon_sym_SLASH,
      mozjs_anon_sym_PERCENT, mozjs_anon_sym_STAR_STAR, mozjs_anon_sym_EQ_EQ,
      mozjs_anon_sym_BANG_EQ, mozjs_anon_sym_QMARK_QMARK]"

definition mozjs_small_run_8328 :: "nat list" where
  "mozjs_small_run_8328 =
    [12, 471, 1, mozjs_anon_sym_EQ, 534, 1, mozjs_anon_sym_EQ_GT, 548, 1, mozjs_anon_sym_in,
      1121, 1, mozjs_anon_sym_LBRACE, 1478, 1, mozjs_sym_identifier, 1480, 1, mozjs_anon_sym_of,
      1482, 1, mozjs_anon_sym_LBRACK, 5, 2, mozjs_sym_html_comment, mozjs_sym_comment, 1496, 3,
      mozjs_sym_object_pattern, mozjs_sym_array_pattern, mozjs_sym__destructuring_pattern, 311,
      11, mozjs_sym__ternary_qmark, mozjs_anon_sym_LPAREN, mozjs_anon_sym_DOT,
      mozjs_sym_optional_chain, mozjs_anon_sym_LT_EQ, mozjs_anon_sym_EQ_EQ_EQ,
      mozjs_anon_sym_BANG_EQ_EQ, mozjs_anon_sym_GT_EQ, mozjs_anon_sym_PLUS_PLUS,
      mozjs_anon_sym_DASH_DASH, mozjs_anon_sym_BQUOTE, 344, 15, mozjs_anon_sym_PLUS_EQ,
      mozjs_anon_sym_DASH_EQ, mozjs_anon_sym_STAR_EQ, mozjs_anon_sym_SLASH_EQ,
      mozjs_anon_sym_PERCENT_EQ, mozjs_anon_sym_CARET_EQ, mozjs_anon_sym_AMP_EQ,
      mozjs_anon_sym_PIPE_EQ, mozjs_anon_sym_GT_GT_EQ, mozjs_anon_sym_GT_GT_GT_EQ,
      mozjs_anon_sym_LT_LT_EQ, mozjs_anon_sym_STAR_STAR_EQ, mozjs_anon_sym_AMP_AMP_EQ,
      mozjs_anon_sym_PIPE_PIPE_EQ, mozjs_anon_sym_QMARK_QMARK_EQ, 307, 20, mozjs_anon_sym_STAR,
      mozjs_anon_sym_LT, mozjs_anon_sym_GT, mozjs_anon_sym_AMP_AMP, mozjs_anon_sym_PIPE_PIPE,
      mozjs_anon_sym_GT_GT, mozjs_anon_sym_GT_GT_GT, mozjs_anon_sym_LT_LT, mozjs_anon_sym_AMP,
      mozjs_anon_sym_CARET, mozjs_anon_sym_PIPE, mozjs_anon_sym_PLUS, mozjs_anon_sym_DASH,
      mozjs_anon_sym_SLASH, mozjs_anon_sym_PERCENT, mozjs_anon_sym_STAR_STAR,
      mozjs_anon_sym_EQ_EQ, mozjs_anon_sym_BANG_EQ, mozjs_anon_sym_QMARK_QMARK,
      mozjs_anon_sym_instanceof]"

definition mozjs_small_run_8411 :: "nat list" where
  "mozjs_small_run_8411 =
    [6, 1485, 1, mozjs_anon_sym_EQ, 1487, 1, mozjs_anon_sym_EQ_GT, 5, 2, mozjs_sym_html_comment,
      mozjs_sym_comment, 1446, 15, mozjs_anon_sym_PLUS_EQ, mozjs_anon_sym_DASH_EQ,
      mozjs_anon_sym_STAR_EQ, mozjs_anon_sym_SLASH_EQ, mozjs_anon_sym_PERCENT_EQ,
      mozjs_anon_sym_CARET_EQ, mozjs_anon_sym_AMP_EQ, mozjs_anon_sym_PIPE_EQ,
      mozjs_anon_sym_GT_GT_EQ, mozjs_anon_sym_GT_GT_GT_EQ, mozjs_anon_sym_LT_LT_EQ,
      mozjs_anon_sym_STAR_STAR_EQ, mozjs_anon_sym_AMP_AMP_EQ, mozjs_anon_sym_PIPE_PIPE_EQ,
      mozjs_anon_sym_QMARK_QMARK_EQ, 1437, 19, mozjs_sym__ternary_qmark, mozjs_anon_sym_COMMA,
      mozjs_anon_sym_RBRACE, mozjs_anon_sym_LPAREN, mozjs_anon_sym_SEMI, mozjs_anon_sym_RPAREN,
      mozjs_anon_sym_COLON, mozjs_anon_sym_LBRACK, mozjs_anon_sym_RBRACK, mozjs_anon_sym_DOT,
      mozjs_sym_optional_chain, mozjs_anon_sym_LT_EQ, mozjs_anon_sym_EQ_EQ_EQ,
      mozjs_anon_sym_BANG_EQ_EQ, mozjs_anon_sym_GT_EQ, mozjs_anon_sym_instanceof,
      mozjs_anon_sym_PLUS_PLUS, mozjs_anon_sym_DASH_DASH, mozjs_anon_sym_BQUOTE, 1435, 20,
      mozjs_anon_sym_STAR, mozjs_anon_sym_in, mozjs_anon_sym_LT, mozjs_anon_sym_GT,
      mozjs_anon_sym_AMP_AMP, mozjs_anon_sym_PIPE_PIPE, mozjs_anon_sym_GT_GT,
      mozjs_anon_sym_GT_GT_GT, mozjs_anon_sym_LT_LT, mozjs_anon_sym_AMP, mozjs_anon_sym_CARET,
      mozjs_anon_sym_PIPE, mozjs_anon_sym_PLUS, mozjs_anon_sym_DASH, mozjs_anon_sym_SLASH,
      mozjs_anon_sym_PERCENT, mozjs_anon_sym_STAR_STAR, mozjs_anon_sym_EQ_EQ,
      mozjs_anon_sym_BANG_EQ, mozjs_anon_sym_QMARK_QMARK]"

definition mozjs_small_run_8482 :: "nat list" where
  "mozjs_small_run_8482 =
    [3, 5, 2, mozjs_sym_html_comment, mozjs_sym_comment, 1157, 15, mozjs_anon_sym_LBRACE,
      mozjs_anon_sym_LPAREN, mozjs_anon_sym_SEMI, mozjs_anon_sym_LBRACK, mozjs_anon_sym_LT,
      mozjs_anon_sym_DQUOTE, mozjs_anon_sym_SQUOTE, mozjs_anon_sym_BANG, mozjs_anon_sym_TILDE,
      mozjs_anon_sym_PLUS_PLUS, mozjs_anon_sym_DASH_DASH, mozjs_anon_sym_BQUOTE,
      mozjs_sym_number, mozjs_anon_sym_AT, mozjs_sym_preproc, 1159, 41, mozjs_anon_sym_export,
      mozjs_anon_sym_import, mozjs_anon_sym_with, mozjs_anon_sym_var, mozjs_anon_sym_let,
      mozjs_anon_sym_const, mozjs_anon_sym_using, mozjs_anon_sym_await, mozjs_anon_sym_if,
      mozjs_anon_sym_switch, mozjs_anon_sym_for, mozjs_anon_sym_while, mozjs_anon_sym_do,
      mozjs_anon_sym_try, mozjs_anon_sym_break, mozjs_anon_sym_continue, mozjs_anon_sym_debugger,
      mozjs_anon_sym_return, mozjs_anon_sym_throw, mozjs_anon_sym_yield, mozjs_anon_sym_class,
      mozjs_anon_sym_async, mozjs_anon_sym_function, mozjs_anon_sym_new, mozjs_anon_sym_PLUS,
      mozjs_anon_sym_DASH, mozjs_anon_sym_SLASH, mozjs_anon_sym_typeof, mozjs_anon_sym_void,
      mozjs_anon_sym_delete, mozjs_sym_identifier, mozjs_sym_private_property_identifier,
      mozjs_sym_this, mozjs_sym_super, mozjs_sym_true, mozjs_sym_false, mozjs_sym_null,
      mozjs_sym_undefined, mozjs_anon_sym_static, mozjs_anon_sym_get, mozjs_anon_sym_set]"

definition mozjs_small_run_8547 :: "nat list" where
  "mozjs_small_run_8547 =
    [6, 1472, 1, mozjs_anon_sym_EQ, 1487, 1, mozjs_anon_sym_EQ_GT, 5, 2, mozjs_sym_html_comment,
      mozjs_sym_comment, 1446, 15, mozjs_anon_sym_PLUS_EQ, mozjs_anon_sym_DASH_EQ,
      mozjs_anon_sym_STAR_EQ, mozjs_anon_sym_SLASH_EQ, mozjs_anon_sym_PERCENT_EQ,
      mozjs_anon_sym_CARET_EQ, mozjs_anon_sym_AMP_EQ, mozjs_anon_sym_PIPE_EQ,
      mozjs_anon_sym_GT_GT_EQ, mozjs_anon_sym_GT_GT_GT_EQ, mozjs_anon_sym_LT_LT_EQ,
      mozjs_anon_sym_STAR_STAR_EQ, mozjs_anon_sym_AMP_AMP_EQ, mozjs_anon_sym_PIPE_PIPE_EQ,
      mozjs_anon_sym_QMARK_QMARK_EQ, 1437, 19, mozjs_sym__ternary_qmark, mozjs_anon_sym_COMMA,
      mozjs_anon_sym_RBRACE, mozjs_anon_sym_LPAREN, mozjs_anon_sym_SEMI, mozjs_anon_sym_RPAREN,
      mozjs_anon_sym_COLON, mozjs_anon_sym_LBRACK, mozjs_anon_sym_RBRACK, mozjs_anon_sym_DOT,
      mozjs_sym_optional_chain, mozjs_anon_sym_LT_EQ, mozjs_anon_sym_EQ_EQ_EQ,
      mozjs_anon_sym_BANG_EQ_EQ, mozjs_anon_sym_GT_EQ, mozjs_anon_sym_instanceof,
      mozjs_anon_sym_PLUS_PLUS, mozjs_anon_sym_DASH_DASH, mozjs_anon_sym_BQUOTE, 1435, 20,
      mozjs_anon_sym_STAR, mozjs_anon_sym_in, mozjs_anon_sym_LT, mozjs_anon_sym_GT,
      mozjs_anon_sym_AMP_AMP, mozjs_anon_sym_PIPE_PIPE, mozjs_anon_sym_GT_GT,
      mozjs_anon_sym_GT_GT_GT, mozjs_anon_sym_LT_LT, mozjs_anon_sym_AMP, mozjs_anon_sym_CARET,
      mozjs_anon_sym_PIPE, mozjs_anon_sym_PLUS, mozjs_anon_sym_DASH, mozjs_anon_sym_SLASH,
      mozjs_anon_sym_PERCENT, mozjs_anon_sym_STAR_STAR, mozjs_anon_sym_EQ_EQ,
      mozjs_anon_sym_BANG_EQ, mozjs_anon_sym_QMARK_QMARK]"

definition mozjs_small_run_8618 :: "nat list" where
  "mozjs_small_run_8618 =
    [3, 5, 2, mozjs_sym_html_comment, mozjs_sym_comment, 1491, 15, mozjs_anon_sym_LBRACE,
      mozjs_anon_sym_LPAREN, mozjs_anon_sym_SEMI, mozjs_anon_sym_LBRACK, mozjs_anon_sym_LT,
      mozjs_anon_sym_DQUOTE, mozjs_anon_sym_SQUOTE, mozjs_anon_sym_BANG, mozjs_anon_sym_TILDE,
      mozjs_anon_sym_PLUS_PLUS, mozjs_anon_sym_DASH_DASH, mozjs_anon_sym_BQUOTE,
      mozjs_sym_number, mozjs_anon_sym_AT, mozjs_sym_preproc, 1489, 41, mozjs_anon_sym_export,
      mozjs_anon_sym_import, mozjs_anon_sym_with, mozjs_anon_sym_var, mozjs_anon_sym_let,
      mozjs_anon_sym_const, mozjs_anon_sym_using, mozjs_anon_sym_await, mozjs_anon_sym_if,
      mozjs_anon_sym_switch, mozjs_anon_sym_for, mozjs_anon_sym_while, mozjs_anon_sym_do,
      mozjs_anon_sym_try, mozjs_anon_sym_break, mozjs_anon_sym_continue, mozjs_anon_sym_debugger,
      mozjs_anon_sym_return, mozjs_anon_sym_throw, mozjs_anon_sym_yield, mozjs_anon_sym_class,
      mozjs_anon_sym_async, mozjs_anon_sym_function, mozjs_anon_sym_new, mozjs_anon_sym_PLUS,
      mozjs_anon_sym_DASH, mozjs_anon_sym_SLASH, mozjs_anon_sym_typeof, mozjs_anon_sym_void,
      mozjs_anon_sym_delete, mozjs_sym_identifier, mozjs_sym_private_property_identifier,
      mozjs_sym_this, mozjs_sym_super, mozjs_sym_true, mozjs_sym_false, mozjs_sym_null,
      mozjs_sym_undefined, mozjs_anon_sym_static, mozjs_anon_sym_get, mozjs_anon_sym_set]"

definition mozjs_small_run_8683 :: "nat list" where
  "mozjs_small_run_8683 =
    [3, 5, 2, mozjs_sym_html_comment, mozjs_sym_comment, 1495, 15, mozjs_anon_sym_LBRACE,
      mozjs_anon_sym_LPAREN, mozjs_anon_sym_SEMI, mozjs_anon_sym_LBRACK, mozjs_anon_sym_LT,
      mozjs_anon_sym_DQUOTE, mozjs_anon_sym_SQUOTE, mozjs_anon_sym_BANG, mozjs_anon_sym_TILDE,
      mozjs_anon_sym_PLUS_PLUS, mozjs_anon_sym_DASH_DASH, mozjs_anon_sym_BQUOTE,
      mozjs_sym_number, mozjs_anon_sym_AT, mozjs_sym_preproc, 1493, 41, mozjs_anon_sym_export,
      mozjs_anon_sym_import, mozjs_anon_sym_with, mozjs_anon_sym_var, mozjs_anon_sym_let,
      mozjs_anon_sym_const, mozjs_anon_sym_using, mozjs_anon_sym_await, mozjs_anon_sym_if,
      mozjs_anon_sym_switch, mozjs_anon_sym_for, mozjs_anon_sym_while, mozjs_anon_sym_do,
      mozjs_anon_sym_try, mozjs_anon_sym_break, mozjs_anon_sym_continue, mozjs_anon_sym_debugger,
      mozjs_anon_sym_return, mozjs_anon_sym_throw, mozjs_anon_sym_yield, mozjs_anon_sym_class,
      mozjs_anon_sym_async, mozjs_anon_sym_function, mozjs_anon_sym_new, mozjs_anon_sym_PLUS,
      mozjs_anon_sym_DASH, mozjs_anon_sym_SLASH, mozjs_anon_sym_typeof, mozjs_anon_sym_void,
      mozjs_anon_sym_delete, mozjs_sym_identifier, mozjs_sym_private_property_identifier,
      mozjs_sym_this, mozjs_sym_super, mozjs_sym_true, mozjs_sym_false, mozjs_sym_null,
      mozjs_sym_undefined, mozjs_anon_sym_static, mozjs_anon_sym_get, mozjs_anon_sym_set]"

definition mozjs_small_run_8748 :: "nat list" where
  "mozjs_small_run_8748 =
    [3, 5, 2, mozjs_sym_html_comment, mozjs_sym_comment, 1499, 15, mozjs_anon_sym_LBRACE,
      mozjs_anon_sym_LPAREN, mozjs_anon_sym_SEMI, mozjs_anon_sym_LBRACK, mozjs_anon_sym_LT,
      mozjs_anon_sym_DQUOTE, mozjs_anon_sym_SQUOTE, mozjs_anon_sym_BANG, mozjs_anon_sym_TILDE,
      mozjs_anon_sym_PLUS_PLUS, mozjs_anon_sym_DASH_DASH, mozjs_anon_sym_BQUOTE,
      mozjs_sym_number, mozjs_anon_sym_AT, mozjs_sym_preproc, 1497, 41, mozjs_anon_sym_export,
      mozjs_anon_sym_import, mozjs_anon_sym_with, mozjs_anon_sym_var, mozjs_anon_sym_let,
      mozjs_anon_sym_const, mozjs_anon_sym_using, mozjs_anon_sym_await, mozjs_anon_sym_if,
      mozjs_anon_sym_switch, mozjs_anon_sym_for, mozjs_anon_sym_while, mozjs_anon_sym_do,
      mozjs_anon_sym_try, mozjs_anon_sym_break, mozjs_anon_sym_continue, mozjs_anon_sym_debugger,
      mozjs_anon_sym_return, mozjs_anon_sym_throw, mozjs_anon_sym_yield, mozjs_anon_sym_class,
      mozjs_anon_sym_async, mozjs_anon_sym_function, mozjs_anon_sym_new, mozjs_anon_sym_PLUS,
      mozjs_anon_sym_DASH, mozjs_anon_sym_SLASH, mozjs_anon_sym_typeof, mozjs_anon_sym_void,
      mozjs_anon_sym_delete, mozjs_sym_identifier, mozjs_sym_private_property_identifier,
      mozjs_sym_this, mozjs_sym_super, mozjs_sym_true, mozjs_sym_false, mozjs_sym_null,
      mozjs_sym_undefined, mozjs_anon_sym_static, mozjs_anon_sym_get, mozjs_anon_sym_set]"

definition mozjs_small_run_8813 :: "nat list" where
  "mozjs_small_run_8813 =
    [3, 5, 2, mozjs_sym_html_comment, mozjs_sym_comment, 1503, 15, mozjs_anon_sym_LBRACE,
      mozjs_anon_sym_LPAREN, mozjs_anon_sym_SEMI, mozjs_anon_sym_LBRACK, mozjs_anon_sym_LT,
      mozjs_anon_sym_DQUOTE, mozjs_anon_sym_SQUOTE, mozjs_anon_sym_BANG, mozjs_anon_sym_TILDE,
      mozjs_anon_sym_PLUS_PLUS, mozjs_anon_sym_DASH_DASH, mozjs_anon_sym_BQUOTE,
      mozjs_sym_number, mozjs_anon_sym_AT, mozjs_sym_preproc, 1501, 41, mozjs_anon_sym_export,
      mozjs_anon_sym_import, mozjs_anon_sym_with, mozjs_anon_sym_var, mozjs_anon_sym_let,
      mozjs_anon_sym_const, mozjs_anon_sym_using, mozjs_anon_sym_await, mozjs_anon_sym_if,
      mozjs_anon_sym_switch, mozjs_anon_sym_for, mozjs_anon_sym_while, mozjs_anon_sym_do,
      mozjs_anon_sym_try, mozjs_anon_sym_break, mozjs_anon_sym_continue, mozjs_anon_sym_debugger,
      mozjs_anon_sym_return, mozjs_anon_sym_throw, mozjs_anon_sym_yield, mozjs_anon_sym_class,
      mozjs_anon_sym_async, mozjs_anon_sym_function, mozjs_anon_sym_new, mozjs_anon_sym_PLUS,
      mozjs_anon_sym_DASH, mozjs_anon_sym_SLASH, mozjs_anon_sym_typeof, mozjs_anon_sym_void,
      mozjs_anon_sym_delete, mozjs_sym_identifier, mozjs_sym_private_property_identifier,
      mozjs_sym_this, mozjs_sym_super, mozjs_sym_true, mozjs_sym_false, mozjs_sym_null,
      mozjs_sym_undefined, mozjs_anon_sym_static, mozjs_anon_sym_get, mozjs_anon_sym_set]"

definition mozjs_small_run_8878 :: "nat list" where
  "mozjs_small_run_8878 =
    [6, 417, 1, mozjs_anon_sym_EQ_GT, 471, 1, mozjs_anon_sym_EQ, 5, 2, mozjs_sym_html_comment,
      mozjs_sym_comment, 344, 15, mozjs_anon_sym_PLUS_EQ, mozjs_anon_sym_DASH_EQ,
      mozjs_anon_sym_STAR_EQ, mozjs_anon_sym_SLASH_EQ, mozjs_anon_sym_PERCENT_EQ,
      mozjs_anon_sym_CARET_EQ, mozjs_anon_sym_AMP_EQ, mozjs_anon_sym_PIPE_EQ,
      mozjs_anon_sym_GT_GT_EQ, mozjs_anon_sym_GT_GT_GT_EQ, mozjs_anon_sym_LT_LT_EQ,
      mozjs_anon_sym_STAR_STAR_EQ, mozjs_anon_sym_AMP_AMP_EQ, mozjs_anon_sym_PIPE_PIPE_EQ,
      mozjs_anon_sym_QMARK_QMARK_EQ, 311, 19, mozjs_sym__ternary_qmark, mozjs_anon_sym_COMMA,
      mozjs_anon_sym_RBRACE, mozjs_anon_sym_LPAREN, mozjs_anon_sym_SEMI, mozjs_anon_sym_RPAREN,
      mozjs_anon_sym_COLON, mozjs_anon_sym_LBRACK, mozjs_anon_sym_RBRACK, mozjs_anon_sym_DOT,
      mozjs_sym_optional_chain, mozjs_anon_sym_LT_EQ, mozjs_anon_sym_EQ_EQ_EQ,
      mozjs_anon_sym_BANG_EQ_EQ, mozjs_anon_sym_GT_EQ, mozjs_anon_sym_instanceof,
      mozjs_anon_sym_PLUS_PLUS, mozjs_anon_sym_DASH_DASH, mozjs_anon_sym_BQUOTE, 307, 20,
      mozjs_anon_sym_STAR, mozjs_anon_sym_in, mozjs_anon_sym_LT, mozjs_anon_sym_GT,
      mozjs_anon_sym_AMP_AMP, mozjs_anon_sym_PIPE_PIPE, mozjs_anon_sym_GT_GT,
      mozjs_anon_sym_GT_GT_GT, mozjs_anon_sym_LT_LT, mozjs_anon_sym_AMP, mozjs_anon_sym_CARET,
      mozjs_anon_sym_PIPE, mozjs_anon_sym_PLUS, mozjs_anon_sym_DASH, mozjs_anon_sym_SLASH,
      mozjs_anon_sym_PERCENT, mozjs_anon_sym_STAR_STAR, mozjs_anon_sym_EQ_EQ,
      mozjs_anon_sym_BANG_EQ, mozjs_anon_sym_QMARK_QMARK]"

definition mozjs_small_run_8949 :: "nat list" where
  "mozjs_small_run_8949 =
    [3, 5, 2, mozjs_sym_html_comment, mozjs_sym_comment, 1503, 15, mozjs_anon_sym_LBRACE,
      mozjs_anon_sym_LPAREN, mozjs_anon_sym_SEMI, mozjs_anon_sym_LBRACK, mozjs_anon_sym_LT,
      mozjs_anon_sym_DQUOTE, mozjs_anon_sym_SQUOTE, mozjs_anon_sym_BANG, mozjs_anon_sym_TILDE,
      mozjs_anon_sym_PLUS_PLUS, mozjs_anon_sym_DASH_DASH, mozjs_anon_sym_BQUOTE,
      mozjs_sym_number, mozjs_anon_sym_AT, mozjs_sym_preproc, 1501, 41, mozjs_anon_sym_export,
      mozjs_anon_sym_import, mozjs_anon_sym_with, mozjs_anon_sym_var, mozjs_anon_sym_let,
      mozjs_anon_sym_const, mozjs_anon_sym_using, mozjs_anon_sym_await, mozjs_anon_sym_if,
      mozjs_anon_sym_switch, mozjs_anon_sym_for, mozjs_anon_sym_while, mozjs_anon_sym_do,
      mozjs_anon_sym_try, mozjs_anon_sym_break, mozjs_anon_sym_continue, mozjs_anon_sym_debugger,
      mozjs_anon_sym_return, mozjs_anon_sym_throw, mozjs_anon_sym_yield, mozjs_anon_sym_class,
      mozjs_anon_sym_async, mozjs_anon_sym_function, mozjs_anon_sym_new, mozjs_anon_sym_PLUS,
      mozjs_anon_sym_DASH, mozjs_anon_sym_SLASH, mozjs_anon_sym_typeof, mozjs_anon_sym_void,
      mozjs_anon_sym_delete, mozjs_sym_identifier, mozjs_sym_private_property_identifier,
      mozjs_sym_this, mozjs_sym_super, mozjs_sym_true, mozjs_sym_false, mozjs_sym_null,
      mozjs_sym_undefined, mozjs_anon_sym_static, mozjs_anon_sym_get, mozjs_anon_sym_set]"

definition mozjs_small_run_9014 :: "nat list" where
  "mozjs_small_run_9014 =
    [3, 5, 2, mozjs_sym_html_comment, mozjs_sym_comment, 1503, 15, mozjs_anon_sym_LBRACE,
      mozjs_anon_sym_LPAREN, mozjs_anon_sym_SEMI, mozjs_anon_sym_LBRACK, mozjs_anon_sym_LT,
      mozjs_anon_sym_DQUOTE, mozjs_anon_sym_SQUOTE, mozjs_anon_sym_BANG, mozjs_anon_sym_TILDE,
      mozjs_anon_sym_PLUS_PLUS, mozjs_anon_sym_DASH_DASH, mozjs_anon_sym_BQUOTE,
      mozjs_sym_number, mozjs_anon_sym_AT, mozjs_sym_preproc, 1501, 41, mozjs_anon_sym_export,
      mozjs_anon_sym_import, mozjs_anon_sym_with, mozjs_anon_sym_var, mozjs_anon_sym_let,
      mozjs_anon_sym_const, mozjs_anon_sym_using, mozjs_anon_sym_await, mozjs_anon_sym_if,
      mozjs_anon_sym_switch, mozjs_anon_sym_for, mozjs_anon_sym_while, mozjs_anon_sym_do,
      mozjs_anon_sym_try, mozjs_anon_sym_break, mozjs_anon_sym_continue, mozjs_anon_sym_debugger,
      mozjs_anon_sym_return, mozjs_anon_sym_throw, mozjs_anon_sym_yield, mozjs_anon_sym_class,
      mozjs_anon_sym_async, mozjs_anon_sym_function, mozjs_anon_sym_new, mozjs_anon_sym_PLUS,
      mozjs_anon_sym_DASH, mozjs_anon_sym_SLASH, mozjs_anon_sym_typeof, mozjs_anon_sym_void,
      mozjs_anon_sym_delete, mozjs_sym_identifier, mozjs_sym_private_property_identifier,
      mozjs_sym_this, mozjs_sym_super, mozjs_sym_true, mozjs_sym_false, mozjs_sym_null,
      mozjs_sym_undefined, mozjs_anon_sym_static, mozjs_anon_sym_get, mozjs_anon_sym_set]"

definition mozjs_small_run_9079 :: "nat list" where
  "mozjs_small_run_9079 =
    [3, 5, 2, mozjs_sym_html_comment, mozjs_sym_comment, 1503, 15, mozjs_anon_sym_LBRACE,
      mozjs_anon_sym_LPAREN, mozjs_anon_sym_SEMI, mozjs_anon_sym_LBRACK, mozjs_anon_sym_LT,
      mozjs_anon_sym_DQUOTE, mozjs_anon_sym_SQUOTE, mozjs_anon_sym_BANG, mozjs_anon_sym_TILDE,
      mozjs_anon_sym_PLUS_PLUS, mozjs_anon_sym_DASH_DASH, mozjs_anon_sym_BQUOTE,
      mozjs_sym_number, mozjs_anon_sym_AT, mozjs_sym_preproc, 1501, 41, mozjs_anon_sym_export,
      mozjs_anon_sym_import, mozjs_anon_sym_with, mozjs_anon_sym_var, mozjs_anon_sym_let,
      mozjs_anon_sym_const, mozjs_anon_sym_using, mozjs_anon_sym_await, mozjs_anon_sym_if,
      mozjs_anon_sym_switch, mozjs_anon_sym_for, mozjs_anon_sym_while, mozjs_anon_sym_do,
      mozjs_anon_sym_try, mozjs_anon_sym_break, mozjs_anon_sym_continue, mozjs_anon_sym_debugger,
      mozjs_anon_sym_return, mozjs_anon_sym_throw, mozjs_anon_sym_yield, mozjs_anon_sym_class,
      mozjs_anon_sym_async, mozjs_anon_sym_function, mozjs_anon_sym_new, mozjs_anon_sym_PLUS,
      mozjs_anon_sym_DASH, mozjs_anon_sym_SLASH, mozjs_anon_sym_typeof, mozjs_anon_sym_void,
      mozjs_anon_sym_delete, mozjs_sym_identifier, mozjs_sym_private_property_identifier,
      mozjs_sym_this, mozjs_sym_super, mozjs_sym_true, mozjs_sym_false, mozjs_sym_null,
      mozjs_sym_undefined, mozjs_anon_sym_static, mozjs_anon_sym_get, mozjs_anon_sym_set]"

definition mozjs_small_run_9144 :: "nat list" where
  "mozjs_small_run_9144 =
    [3, 5, 2, mozjs_sym_html_comment, mozjs_sym_comment, 1476, 15, mozjs_anon_sym_LBRACE,
      mozjs_anon_sym_LPAREN, mozjs_anon_sym_SEMI, mozjs_anon_sym_LBRACK, mozjs_anon_sym_LT,
      mozjs_anon_sym_DQUOTE, mozjs_anon_sym_SQUOTE, mozjs_anon_sym_BANG, mozjs_anon_sym_TILDE,
      mozjs_anon_sym_PLUS_PLUS, mozjs_anon_sym_DASH_DASH, mozjs_anon_sym_BQUOTE,
      mozjs_sym_number, mozjs_anon_sym_AT, mozjs_sym_preproc, 1474, 41, mozjs_anon_sym_export,
      mozjs_anon_sym_import, mozjs_anon_sym_with, mozjs_anon_sym_var, mozjs_anon_sym_let,
      mozjs_anon_sym_const, mozjs_anon_sym_using, mozjs_anon_sym_await, mozjs_anon_sym_if,
      mozjs_anon_sym_switch, mozjs_anon_sym_for, mozjs_anon_sym_while, mozjs_anon_sym_do,
      mozjs_anon_sym_try, mozjs_anon_sym_break, mozjs_anon_sym_continue, mozjs_anon_sym_debugger,
      mozjs_anon_sym_return, mozjs_anon_sym_throw, mozjs_anon_sym_yield, mozjs_anon_sym_class,
      mozjs_anon_sym_async, mozjs_anon_sym_function, mozjs_anon_sym_new, mozjs_anon_sym_PLUS,
      mozjs_anon_sym_DASH, mozjs_anon_sym_SLASH, mozjs_anon_sym_typeof, mozjs_anon_sym_void,
      mozjs_anon_sym_delete, mozjs_sym_identifier, mozjs_sym_private_property_identifier,
      mozjs_sym_this, mozjs_sym_super, mozjs_sym_true, mozjs_sym_false, mozjs_sym_null,
      mozjs_sym_undefined, mozjs_anon_sym_static, mozjs_anon_sym_get, mozjs_anon_sym_set]"

definition mozjs_small_run_9209 :: "nat list" where
  "mozjs_small_run_9209 =
    [3, 5, 2, mozjs_sym_html_comment, mozjs_sym_comment, 1476, 15, mozjs_anon_sym_LBRACE,
      mozjs_anon_sym_LPAREN, mozjs_anon_sym_SEMI, mozjs_anon_sym_LBRACK, mozjs_anon_sym_LT,
      mozjs_anon_sym_DQUOTE, mozjs_anon_sym_SQUOTE, mozjs_anon_sym_BANG, mozjs_anon_sym_TILDE,
      mozjs_anon_sym_PLUS_PLUS, mozjs_anon_sym_DASH_DASH, mozjs_anon_sym_BQUOTE,
      mozjs_sym_number, mozjs_anon_sym_AT, mozjs_sym_preproc, 1474, 41, mozjs_anon_sym_export,
      mozjs_anon_sym_import, mozjs_anon_sym_with, mozjs_anon_sym_var, mozjs_anon_sym_let,
      mozjs_anon_sym_const, mozjs_anon_sym_using, mozjs_anon_sym_await, mozjs_anon_sym_if,
      mozjs_anon_sym_switch, mozjs_anon_sym_for, mozjs_anon_sym_while, mozjs_anon_sym_do,
      mozjs_anon_sym_try, mozjs_anon_sym_break, mozjs_anon_sym_continue, mozjs_anon_sym_debugger,
      mozjs_anon_sym_return, mozjs_anon_sym_throw, mozjs_anon_sym_yield, mozjs_anon_sym_class,
      mozjs_anon_sym_async, mozjs_anon_sym_function, mozjs_anon_sym_new, mozjs_anon_sym_PLUS,
      mozjs_anon_sym_DASH, mozjs_anon_sym_SLASH, mozjs_anon_sym_typeof, mozjs_anon_sym_void,
      mozjs_anon_sym_delete, mozjs_sym_identifier, mozjs_sym_private_property_identifier,
      mozjs_sym_this, mozjs_sym_super, mozjs_sym_true, mozjs_sym_false, mozjs_sym_null,
      mozjs_sym_undefined, mozjs_anon_sym_static, mozjs_anon_sym_get, mozjs_anon_sym_set]"

definition mozjs_small_run_9274 :: "nat list" where
  "mozjs_small_run_9274 =
    [3, 5, 2, mozjs_sym_html_comment, mozjs_sym_comment, 1476, 15, mozjs_anon_sym_LBRACE,
      mozjs_anon_sym_LPAREN, mozjs_anon_sym_SEMI, mozjs_anon_sym_LBRACK, mozjs_anon_sym_LT,
      mozjs_anon_sym_DQUOTE, mozjs_anon_sym_SQUOTE, mozjs_anon_sym_BANG, mozjs_anon_sym_TILDE,
      mozjs_anon_sym_PLUS_PLUS, mozjs_anon_sym_DASH_DASH, mozjs_anon_sym_BQUOTE,
      mozjs_sym_number, mozjs_anon_sym_AT, mozjs_sym_preproc, 1474, 41, mozjs_anon_sym_export,
      mozjs_anon_sym_import, mozjs_anon_sym_with, mozjs_anon_sym_var, mozjs_anon_sym_let,
      mozjs_anon_sym_const, mozjs_anon_sym_using, mozjs_anon_sym_await, mozjs_anon_sym_if,
      mozjs_anon_sym_switch, mozjs_anon_sym_for, mozjs_anon_sym_while, mozjs_anon_sym_do,
      mozjs_anon_sym_try, mozjs_anon_sym_break, mozjs_anon_sym_continue, mozjs_anon_sym_debugger,
      mozjs_anon_sym_return, mozjs_anon_sym_throw, mozjs_anon_sym_yield, mozjs_anon_sym_class,
      mozjs_anon_sym_async, mozjs_anon_sym_function, mozjs_anon_sym_new, mozjs_anon_sym_PLUS,
      mozjs_anon_sym_DASH, mozjs_anon_sym_SLASH, mozjs_anon_sym_typeof, mozjs_anon_sym_void,
      mozjs_anon_sym_delete, mozjs_sym_identifier, mozjs_sym_private_property_identifier,
      mozjs_sym_this, mozjs_sym_super, mozjs_sym_true, mozjs_sym_false, mozjs_sym_null,
      mozjs_sym_undefined, mozjs_anon_sym_static, mozjs_anon_sym_get, mozjs_anon_sym_set]"

definition mozjs_small_run_9339 :: "nat list" where
  "mozjs_small_run_9339 =
    [3, 5, 2, mozjs_sym_html_comment, mozjs_sym_comment, 1507, 15, mozjs_anon_sym_LBRACE,
      mozjs_anon_sym_LPAREN, mozjs_anon_sym_SEMI, mozjs_anon_sym_LBRACK, mozjs_anon_sym_LT,
      mozjs_anon_sym_DQUOTE, mozjs_anon_sym_SQUOTE, mozjs_anon_sym_BANG, mozjs_anon_sym_TILDE,
      mozjs_anon_sym_PLUS_PLUS, mozjs_anon_sym_DASH_DASH, mozjs_anon_sym_BQUOTE,
      mozjs_sym_number, mozjs_anon_sym_AT, mozjs_sym_preproc, 1505, 41, mozjs_anon_sym_export,
      mozjs_anon_sym_import, mozjs_anon_sym_with, mozjs_anon_sym_var, mozjs_anon_sym_let,
      mozjs_anon_sym_const, mozjs_anon_sym_using, mozjs_anon_sym_await, mozjs_anon_sym_if,
      mozjs_anon_sym_switch, mozjs_anon_sym_for, mozjs_anon_sym_while, mozjs_anon_sym_do,
      mozjs_anon_sym_try, mozjs_anon_sym_break, mozjs_anon_sym_continue, mozjs_anon_sym_debugger,
      mozjs_anon_sym_return, mozjs_anon_sym_throw, mozjs_anon_sym_yield, mozjs_anon_sym_class,
      mozjs_anon_sym_async, mozjs_anon_sym_function, mozjs_anon_sym_new, mozjs_anon_sym_PLUS,
      mozjs_anon_sym_DASH, mozjs_anon_sym_SLASH, mozjs_anon_sym_typeof, mozjs_anon_sym_void,
      mozjs_anon_sym_delete, mozjs_sym_identifier, mozjs_sym_private_property_identifier,
      mozjs_sym_this, mozjs_sym_super, mozjs_sym_true, mozjs_sym_false, mozjs_sym_null,
      mozjs_sym_undefined, mozjs_anon_sym_static, mozjs_anon_sym_get, mozjs_anon_sym_set]"

definition mozjs_small_run_9404 :: "nat list" where
  "mozjs_small_run_9404 =
    [3, 5, 2, mozjs_sym_html_comment, mozjs_sym_comment, 1511, 15, mozjs_anon_sym_LBRACE,
      mozjs_anon_sym_LPAREN, mozjs_anon_sym_SEMI, mozjs_anon_sym_LBRACK, mozjs_anon_sym_LT,
      mozjs_anon_sym_DQUOTE, mozjs_anon_sym_SQUOTE, mozjs_anon_sym_BANG, mozjs_anon_sym_TILDE,
      mozjs_anon_sym_PLUS_PLUS, mozjs_anon_sym_DASH_DASH, mozjs_anon_sym_BQUOTE,
      mozjs_sym_number, mozjs_anon_sym_AT, mozjs_sym_preproc, 1509, 41, mozjs_anon_sym_export,
      mozjs_anon_sym_import, mozjs_anon_sym_with, mozjs_anon_sym_var, mozjs_anon_sym_let,
      mozjs_anon_sym_const, mozjs_anon_sym_using, mozjs_anon_sym_await, mozjs_anon_sym_if,
      mozjs_anon_sym_switch, mozjs_anon_sym_for, mozjs_anon_sym_while, mozjs_anon_sym_do,
      mozjs_anon_sym_try, mozjs_anon_sym_break, mozjs_anon_sym_continue, mozjs_anon_sym_debugger,
      mozjs_anon_sym_return, mozjs_anon_sym_throw, mozjs_anon_sym_yield, mozjs_anon_sym_class,
      mozjs_anon_sym_async, mozjs_anon_sym_function, mozjs_anon_sym_new, mozjs_anon_sym_PLUS,
      mozjs_anon_sym_DASH, mozjs_anon_sym_SLASH, mozjs_anon_sym_typeof, mozjs_anon_sym_void,
      mozjs_anon_sym_delete, mozjs_sym_identifier, mozjs_sym_private_property_identifier,
      mozjs_sym_this, mozjs_sym_super, mozjs_sym_true, mozjs_sym_false, mozjs_sym_null,
      mozjs_sym_undefined, mozjs_anon_sym_static, mozjs_anon_sym_get, mozjs_anon_sym_set]"

definition mozjs_small_run_9469 :: "nat list" where
  "mozjs_small_run_9469 =
    [3, 5, 2, mozjs_sym_html_comment, mozjs_sym_comment, 1515, 15, mozjs_anon_sym_LBRACE,
      mozjs_anon_sym_LPAREN, mozjs_anon_sym_SEMI, mozjs_anon_sym_LBRACK, mozjs_anon_sym_LT,
      mozjs_anon_sym_DQUOTE, mozjs_anon_sym_SQUOTE, mozjs_anon_sym_BANG, mozjs_anon_sym_TILDE,
      mozjs_anon_sym_PLUS_PLUS, mozjs_anon_sym_DASH_DASH, mozjs_anon_sym_BQUOTE,
      mozjs_sym_number, mozjs_anon_sym_AT, mozjs_sym_preproc, 1513, 41, mozjs_anon_sym_export,
      mozjs_anon_sym_import, mozjs_anon_sym_with, mozjs_anon_sym_var, mozjs_anon_sym_let,
      mozjs_anon_sym_const, mozjs_anon_sym_using, mozjs_anon_sym_await, mozjs_anon_sym_if,
      mozjs_anon_sym_switch, mozjs_anon_sym_for, mozjs_anon_sym_while, mozjs_anon_sym_do,
      mozjs_anon_sym_try, mozjs_anon_sym_break, mozjs_anon_sym_continue, mozjs_anon_sym_debugger,
      mozjs_anon_sym_return, mozjs_anon_sym_throw, mozjs_anon_sym_yield, mozjs_anon_sym_class,
      mozjs_anon_sym_async, mozjs_anon_sym_function, mozjs_anon_sym_new, mozjs_anon_sym_PLUS,
      mozjs_anon_sym_DASH, mozjs_anon_sym_SLASH, mozjs_anon_sym_typeof, mozjs_anon_sym_void,
      mozjs_anon_sym_delete, mozjs_sym_identifier, mozjs_sym_private_property_identifier,
      mozjs_sym_this, mozjs_sym_super, mozjs_sym_true, mozjs_sym_false, mozjs_sym_null,
      mozjs_sym_undefined, mozjs_anon_sym_static, mozjs_anon_sym_get, mozjs_anon_sym_set]"

definition mozjs_small_run_9534 :: "nat list" where
  "mozjs_small_run_9534 =
    [3, 5, 2, mozjs_sym_html_comment, mozjs_sym_comment, 1519, 15, mozjs_anon_sym_LBRACE,
      mozjs_anon_sym_LPAREN, mozjs_anon_sym_SEMI, mozjs_anon_sym_LBRACK, mozjs_anon_sym_LT,
      mozjs_anon_sym_DQUOTE, mozjs_anon_sym_SQUOTE, mozjs_anon_sym_BANG, mozjs_anon_sym_TILDE,
      mozjs_anon_sym_PLUS_PLUS, mozjs_anon_sym_DASH_DASH, mozjs_anon_sym_BQUOTE,
      mozjs_sym_number, mozjs_anon_sym_AT, mozjs_sym_preproc, 1517, 41, mozjs_anon_sym_export,
      mozjs_anon_sym_import, mozjs_anon_sym_with, mozjs_anon_sym_var, mozjs_anon_sym_let,
      mozjs_anon_sym_const, mozjs_anon_sym_using, mozjs_anon_sym_await, mozjs_anon_sym_if,
      mozjs_anon_sym_switch, mozjs_anon_sym_for, mozjs_anon_sym_while, mozjs_anon_sym_do,
      mozjs_anon_sym_try, mozjs_anon_sym_break, mozjs_anon_sym_continue, mozjs_anon_sym_debugger,
      mozjs_anon_sym_return, mozjs_anon_sym_throw, mozjs_anon_sym_yield, mozjs_anon_sym_class,
      mozjs_anon_sym_async, mozjs_anon_sym_function, mozjs_anon_sym_new, mozjs_anon_sym_PLUS,
      mozjs_anon_sym_DASH, mozjs_anon_sym_SLASH, mozjs_anon_sym_typeof, mozjs_anon_sym_void,
      mozjs_anon_sym_delete, mozjs_sym_identifier, mozjs_sym_private_property_identifier,
      mozjs_sym_this, mozjs_sym_super, mozjs_sym_true, mozjs_sym_false, mozjs_sym_null,
      mozjs_sym_undefined, mozjs_anon_sym_static, mozjs_anon_sym_get, mozjs_anon_sym_set]"

definition mozjs_small_run_9599 :: "nat list" where
  "mozjs_small_run_9599 =
    [3, 5, 2, mozjs_sym_html_comment, mozjs_sym_comment, 1523, 15, mozjs_anon_sym_LBRACE,
      mozjs_anon_sym_LPAREN, mozjs_anon_sym_SEMI, mozjs_anon_sym_LBRACK, mozjs_anon_sym_LT,
      mozjs_anon_sym_DQUOTE, mozjs_anon_sym_SQUOTE, mozjs_anon_sym_BANG, mozjs_anon_sym_TILDE,
      mozjs_anon_sym_PLUS_PLUS, mozjs_anon_sym_DASH_DASH, mozjs_anon_sym_BQUOTE,
      mozjs_sym_number, mozjs_anon_sym_AT, mozjs_sym_preproc, 1521, 41, mozjs_anon_sym_export,
      mozjs_anon_sym_import, mozjs_anon_sym_with, mozjs_anon_sym_var, mozjs_anon_sym_let,
      mozjs_anon_sym_const, mozjs_anon_sym_using, mozjs_anon_sym_await, mozjs_anon_sym_if,
      mozjs_anon_sym_switch, mozjs_anon_sym_for, mozjs_anon_sym_while, mozjs_anon_sym_do,
      mozjs_anon_sym_try, mozjs_anon_sym_break, mozjs_anon_sym_continue, mozjs_anon_sym_debugger,
      mozjs_anon_sym_return, mozjs_anon_sym_throw, mozjs_anon_sym_yield, mozjs_anon_sym_class,
      mozjs_anon_sym_async, mozjs_anon_sym_function, mozjs_anon_sym_new, mozjs_anon_sym_PLUS,
      mozjs_anon_sym_DASH, mozjs_anon_sym_SLASH, mozjs_anon_sym_typeof, mozjs_anon_sym_void,
      mozjs_anon_sym_delete, mozjs_sym_identifier, mozjs_sym_private_property_identifier,
      mozjs_sym_this, mozjs_sym_super, mozjs_sym_true, mozjs_sym_false, mozjs_sym_null,
      mozjs_sym_undefined, mozjs_anon_sym_static, mozjs_anon_sym_get, mozjs_anon_sym_set]"

definition mozjs_small_run_9664 :: "nat list" where
  "mozjs_small_run_9664 =
    [3, 5, 2, mozjs_sym_html_comment, mozjs_sym_comment, 1527, 15, mozjs_anon_sym_LBRACE,
      mozjs_anon_sym_LPAREN, mozjs_anon_sym_SEMI, mozjs_anon_sym_LBRACK, mozjs_anon_sym_LT,
      mozjs_anon_sym_DQUOTE, mozjs_anon_sym_SQUOTE, mozjs_anon_sym_BANG, mozjs_anon_sym_TILDE,
      mozjs_anon_sym_PLUS_PLUS, mozjs_anon_sym_DASH_DASH, mozjs_anon_sym_BQUOTE,
      mozjs_sym_number, mozjs_anon_sym_AT, mozjs_sym_preproc, 1525, 41, mozjs_anon_sym_export,
      mozjs_anon_sym_import, mozjs_anon_sym_with, mozjs_anon_sym_var, mozjs_anon_sym_let,
      mozjs_anon_sym_const, mozjs_anon_sym_using, mozjs_anon_sym_await, mozjs_anon_sym_if,
      mozjs_anon_sym_switch, mozjs_anon_sym_for, mozjs_anon_sym_while, mozjs_anon_sym_do,
      mozjs_anon_sym_try, mozjs_anon_sym_break, mozjs_anon_sym_continue, mozjs_anon_sym_debugger,
      mozjs_anon_sym_return, mozjs_anon_sym_throw, mozjs_anon_sym_yield, mozjs_anon_sym_class,
      mozjs_anon_sym_async, mozjs_anon_sym_function, mozjs_anon_sym_new, mozjs_anon_sym_PLUS,
      mozjs_anon_sym_DASH, mozjs_anon_sym_SLASH, mozjs_anon_sym_typeof, mozjs_anon_sym_void,
      mozjs_anon_sym_delete, mozjs_sym_identifier, mozjs_sym_private_property_identifier,
      mozjs_sym_this, mozjs_sym_super, mozjs_sym_true, mozjs_sym_false, mozjs_sym_null,
      mozjs_sym_undefined, mozjs_anon_sym_static, mozjs_anon_sym_get, mozjs_anon_sym_set]"

definition mozjs_small_run_9729 :: "nat list" where
  "mozjs_small_run_9729 =
    [3, 5, 2, mozjs_sym_html_comment, mozjs_sym_comment, 1531, 15, mozjs_anon_sym_LBRACE,
      mozjs_anon_sym_LPAREN, mozjs_anon_sym_SEMI, mozjs_anon_sym_LBRACK, mozjs_anon_sym_LT,
      mozjs_anon_sym_DQUOTE, mozjs_anon_sym_SQUOTE, mozjs_anon_sym_BANG, mozjs_anon_sym_TILDE,
      mozjs_anon_sym_PLUS_PLUS, mozjs_anon_sym_DASH_DASH, mozjs_anon_sym_BQUOTE,
      mozjs_sym_number, mozjs_anon_sym_AT, mozjs_sym_preproc, 1529, 41, mozjs_anon_sym_export,
      mozjs_anon_sym_import, mozjs_anon_sym_with, mozjs_anon_sym_var, mozjs_anon_sym_let,
      mozjs_anon_sym_const, mozjs_anon_sym_using, mozjs_anon_sym_await, mozjs_anon_sym_if,
      mozjs_anon_sym_switch, mozjs_anon_sym_for, mozjs_anon_sym_while, mozjs_anon_sym_do,
      mozjs_anon_sym_try, mozjs_anon_sym_break, mozjs_anon_sym_continue, mozjs_anon_sym_debugger,
      mozjs_anon_sym_return, mozjs_anon_sym_throw, mozjs_anon_sym_yield, mozjs_anon_sym_class,
      mozjs_anon_sym_async, mozjs_anon_sym_function, mozjs_anon_sym_new, mozjs_anon_sym_PLUS,
      mozjs_anon_sym_DASH, mozjs_anon_sym_SLASH, mozjs_anon_sym_typeof, mozjs_anon_sym_void,
      mozjs_anon_sym_delete, mozjs_sym_identifier, mozjs_sym_private_property_identifier,
      mozjs_sym_this, mozjs_sym_super, mozjs_sym_true, mozjs_sym_false, mozjs_sym_null,
      mozjs_sym_undefined, mozjs_anon_sym_static, mozjs_anon_sym_get, mozjs_anon_sym_set]"

definition mozjs_small_run_9794 :: "nat list" where
  "mozjs_small_run_9794 =
    [5, 1485, 1, mozjs_anon_sym_EQ, 5, 2, mozjs_sym_html_comment, mozjs_sym_comment, 1446, 15,
      mozjs_anon_sym_PLUS_EQ, mozjs_anon_sym_DASH_EQ, mozjs_anon_sym_STAR_EQ,
      mozjs_anon_sym_SLASH_EQ, mozjs_anon_sym_PERCENT_EQ, mozjs_anon_sym_CARET_EQ,
      mozjs_anon_sym_AMP_EQ, mozjs_anon_sym_PIPE_EQ, mozjs_anon_sym_GT_GT_EQ,
      mozjs_anon_sym_GT_GT_GT_EQ, mozjs_anon_sym_LT_LT_EQ, mozjs_anon_sym_STAR_STAR_EQ,
      mozjs_anon_sym_AMP_AMP_EQ, mozjs_anon_sym_PIPE_PIPE_EQ, mozjs_anon_sym_QMARK_QMARK_EQ,
      1437, 19, mozjs_sym__ternary_qmark, mozjs_anon_sym_COMMA, mozjs_anon_sym_RBRACE,
      mozjs_anon_sym_LPAREN, mozjs_anon_sym_SEMI, mozjs_anon_sym_RPAREN, mozjs_anon_sym_COLON,
      mozjs_anon_sym_LBRACK, mozjs_anon_sym_RBRACK, mozjs_anon_sym_DOT, mozjs_sym_optional_chain,
      mozjs_anon_sym_LT_EQ, mozjs_anon_sym_EQ_EQ_EQ, mozjs_anon_sym_BANG_EQ_EQ,
      mozjs_anon_sym_GT_EQ, mozjs_anon_sym_instanceof, mozjs_anon_sym_PLUS_PLUS,
      mozjs_anon_sym_DASH_DASH, mozjs_anon_sym_BQUOTE, 1435, 20, mozjs_anon_sym_STAR,
      mozjs_anon_sym_in, mozjs_anon_sym_LT, mozjs_anon_sym_GT, mozjs_anon_sym_AMP_AMP,
      mozjs_anon_sym_PIPE_PIPE, mozjs_anon_sym_GT_GT, mozjs_anon_sym_GT_GT_GT,
      mozjs_anon_sym_LT_LT, mozjs_anon_sym_AMP, mozjs_anon_sym_CARET, mozjs_anon_sym_PIPE,
      mozjs_anon_sym_PLUS, mozjs_anon_sym_DASH, mozjs_anon_sym_SLASH, mozjs_anon_sym_PERCENT,
      mozjs_anon_sym_STAR_STAR, mozjs_anon_sym_EQ_EQ, mozjs_anon_sym_BANG_EQ,
      mozjs_anon_sym_QMARK_QMARK]"

definition mozjs_small_run_9862 :: "nat list" where
  "mozjs_small_run_9862 =
    [3, 5, 2, mozjs_sym_html_comment, mozjs_sym_comment, 1456, 21, mozjs_anon_sym_STAR,
      mozjs_anon_sym_in, mozjs_anon_sym_EQ, mozjs_anon_sym_LT, mozjs_anon_sym_GT,
      mozjs_anon_sym_AMP_AMP, mozjs_anon_sym_PIPE_PIPE, mozjs_anon_sym_GT_GT,
      mozjs_anon_sym_GT_GT_GT, mozjs_anon_sym_LT_LT, mozjs_anon_sym_AMP, mozjs_anon_sym_CARET,
      mozjs_anon_sym_PIPE, mozjs_anon_sym_PLUS, mozjs_anon_sym_DASH, mozjs_anon_sym_SLASH,
      mozjs_anon_sym_PERCENT, mozjs_anon_sym_STAR_STAR, mozjs_anon_sym_EQ_EQ,
      mozjs_anon_sym_BANG_EQ, mozjs_anon_sym_QMARK_QMARK, 1458, 33,
      mozjs_sym__automatic_semicolon, mozjs_sym__ternary_qmark, mozjs_anon_sym_COMMA,
      mozjs_anon_sym_RBRACE, mozjs_anon_sym_of, mozjs_anon_sym_LPAREN, mozjs_anon_sym_SEMI,
      mozjs_anon_sym_LBRACK, mozjs_anon_sym_DOT, mozjs_sym_optional_chain,
      mozjs_anon_sym_PLUS_EQ, mozjs_anon_sym_DASH_EQ, mozjs_anon_sym_STAR_EQ,
      mozjs_anon_sym_SLASH_EQ, mozjs_anon_sym_PERCENT_EQ, mozjs_anon_sym_CARET_EQ,
      mozjs_anon_sym_AMP_EQ, mozjs_anon_sym_PIPE_EQ, mozjs_anon_sym_GT_GT_EQ,
      mozjs_anon_sym_GT_GT_GT_EQ, mozjs_anon_sym_LT_LT_EQ, mozjs_anon_sym_STAR_STAR_EQ,
      mozjs_anon_sym_AMP_AMP_EQ, mozjs_anon_sym_PIPE_PIPE_EQ, mozjs_anon_sym_QMARK_QMARK_EQ,
      mozjs_anon_sym_LT_EQ, mozjs_anon_sym_EQ_EQ_EQ, mozjs_anon_sym_BANG_EQ_EQ,
      mozjs_anon_sym_GT_EQ, mozjs_anon_sym_instanceof, mozjs_anon_sym_PLUS_PLUS,
      mozjs_anon_sym_DASH_DASH, mozjs_anon_sym_BQUOTE]"

definition mozjs_small_run_9925 :: "nat list" where
  "mozjs_small_run_9925 =
    [6, 559, 1, mozjs_anon_sym_EQ, 563, 1, mozjs_anon_sym_EQ_GT, 5, 2, mozjs_sym_html_comment,
      mozjs_sym_comment, 344, 15, mozjs_anon_sym_PLUS_EQ, mozjs_anon_sym_DASH_EQ,
      mozjs_anon_sym_STAR_EQ, mozjs_anon_sym_SLASH_EQ, mozjs_anon_sym_PERCENT_EQ,
      mozjs_anon_sym_CARET_EQ, mozjs_anon_sym_AMP_EQ, mozjs_anon_sym_PIPE_EQ,
      mozjs_anon_sym_GT_GT_EQ, mozjs_anon_sym_GT_GT_GT_EQ, mozjs_anon_sym_LT_LT_EQ,
      mozjs_anon_sym_STAR_STAR_EQ, mozjs_anon_sym_AMP_AMP_EQ, mozjs_anon_sym_PIPE_PIPE_EQ,
      mozjs_anon_sym_QMARK_QMARK_EQ, 311, 17, mozjs_sym__automatic_semicolon,
      mozjs_sym__ternary_qmark, mozjs_anon_sym_COMMA, mozjs_anon_sym_of, mozjs_anon_sym_LPAREN,
      mozjs_anon_sym_SEMI, mozjs_anon_sym_LBRACK, mozjs_anon_sym_DOT, mozjs_sym_optional_chain,
      mozjs_anon_sym_LT_EQ, mozjs_anon_sym_EQ_EQ_EQ, mozjs_anon_sym_BANG_EQ_EQ,
      mozjs_anon_sym_GT_EQ, mozjs_anon_sym_instanceof, mozjs_anon_sym_PLUS_PLUS,
      mozjs_anon_sym_DASH_DASH, mozjs_anon_sym_BQUOTE, 307, 20, mozjs_anon_sym_STAR,
      mozjs_anon_sym_in, mozjs_anon_sym_LT, mozjs_anon_sym_GT, mozjs_anon_sym_AMP_AMP,
      mozjs_anon_sym_PIPE_PIPE, mozjs_anon_sym_GT_GT, mozjs_anon_sym_GT_GT_GT,
      mozjs_anon_sym_LT_LT, mozjs_anon_sym_AMP, mozjs_anon_sym_CARET, mozjs_anon_sym_PIPE,
      mozjs_anon_sym_PLUS, mozjs_anon_sym_DASH, mozjs_anon_sym_SLASH, mozjs_anon_sym_PERCENT,
      mozjs_anon_sym_STAR_STAR, mozjs_anon_sym_EQ_EQ, mozjs_anon_sym_BANG_EQ,
      mozjs_anon_sym_QMARK_QMARK]"

definition mozjs_small_run_9994 :: "nat list" where
  "mozjs_small_run_9994 =
    [7, 1535, 1, mozjs_anon_sym_EQ, 1538, 1, mozjs_anon_sym_EQ_GT, 5, 2, mozjs_sym_html_comment,
      mozjs_sym_comment, 1533, 4, mozjs_anon_sym_COMMA, mozjs_anon_sym_RBRACE,
      mozjs_anon_sym_RPAREN, mozjs_anon_sym_RBRACK, 1437, 13, mozjs_sym__ternary_qmark,
      mozjs_anon_sym_LPAREN, mozjs_anon_sym_LBRACK, mozjs_anon_sym_DOT, mozjs_sym_optional_chain,
      mozjs_anon_sym_LT_EQ, mozjs_anon_sym_EQ_EQ_EQ, mozjs_anon_sym_BANG_EQ_EQ,
      mozjs_anon_sym_GT_EQ, mozjs_anon_sym_instanceof, mozjs_anon_sym_PLUS_PLUS,
      mozjs_anon_sym_DASH_DASH, mozjs_anon_sym_BQUOTE, 1446, 15, mozjs_anon_sym_PLUS_EQ,
      mozjs_anon_sym_DASH_EQ, mozjs_anon_sym_STAR_EQ, mozjs_anon_sym_SLASH_EQ,
      mozjs_anon_sym_PERCENT_EQ, mozjs_anon_sym_CARET_EQ, mozjs_anon_sym_AMP_EQ,
      mozjs_anon_sym_PIPE_EQ, mozjs_anon_sym_GT_GT_EQ, mozjs_anon_sym_GT_GT_GT_EQ,
      mozjs_anon_sym_LT_LT_EQ, mozjs_anon_sym_STAR_STAR_EQ, mozjs_anon_sym_AMP_AMP_EQ,
      mozjs_anon_sym_PIPE_PIPE_EQ, mozjs_anon_sym_QMARK_QMARK_EQ, 1435, 20, mozjs_anon_sym_STAR,
      mozjs_anon_sym_in, mozjs_anon_sym_LT, mozjs_anon_sym_GT, mozjs_anon_sym_AMP_AMP,
      mozjs_anon_sym_PIPE_PIPE, mozjs_anon_sym_GT_GT, mozjs_anon_sym_GT_GT_GT,
      mozjs_anon_sym_LT_LT, mozjs_anon_sym_AMP, mozjs_anon_sym_CARET, mozjs_anon_sym_PIPE,
      mozjs_anon_sym_PLUS, mozjs_anon_sym_DASH, mozjs_anon_sym_SLASH, mozjs_anon_sym_PERCENT,
      mozjs_anon_sym_STAR_STAR, mozjs_anon_sym_EQ_EQ, mozjs_anon_sym_BANG_EQ,
      mozjs_anon_sym_QMARK_QMARK]"

definition mozjs_small_run_10065 :: "nat list" where
  "mozjs_small_run_10065 =
    [7, 497, 1, mozjs_anon_sym_COLON, 1444, 1, mozjs_anon_sym_EQ_GT, 1540, 1, mozjs_anon_sym_EQ,
      5, 2, mozjs_sym_html_comment, mozjs_sym_comment, 1446, 15, mozjs_anon_sym_PLUS_EQ,
      mozjs_anon_sym_DASH_EQ, mozjs_anon_sym_STAR_EQ, mozjs_anon_sym_SLASH_EQ,
      mozjs_anon_sym_PERCENT_EQ, mozjs_anon_sym_CARET_EQ, mozjs_anon_sym_AMP_EQ,
      mozjs_anon_sym_PIPE_EQ, mozjs_anon_sym_GT_GT_EQ, mozjs_anon_sym_GT_GT_GT_EQ,
      mozjs_anon_sym_LT_LT_EQ, mozjs_anon_sym_STAR_STAR_EQ, mozjs_anon_sym_AMP_AMP_EQ,
      mozjs_anon_sym_PIPE_PIPE_EQ, mozjs_anon_sym_QMARK_QMARK_EQ, 1437, 16,
      mozjs_sym__automatic_semicolon, mozjs_sym__ternary_qmark, mozjs_anon_sym_COMMA,
      mozjs_anon_sym_LPAREN, mozjs_anon_sym_SEMI, mozjs_anon_sym_LBRACK, mozjs_anon_sym_DOT,
      mozjs_sym_optional_chain, mozjs_anon_sym_LT_EQ, mozjs_anon_sym_EQ_EQ_EQ,
      mozjs_anon_sym_BANG_EQ_EQ, mozjs_anon_sym_GT_EQ, mozjs_anon_sym_instanceof,
      mozjs_anon_sym_PLUS_PLUS, mozjs_anon_sym_DASH_DASH, mozjs_anon_sym_BQUOTE, 1435, 20,
      mozjs_anon_sym_STAR, mozjs_anon_sym_in, mozjs_anon_sym_LT, mozjs_anon_sym_GT,
      mozjs_anon_sym_AMP_AMP, mozjs_anon_sym_PIPE_PIPE, mozjs_anon_sym_GT_GT,
      mozjs_anon_sym_GT_GT_GT, mozjs_anon_sym_LT_LT, mozjs_anon_sym_AMP, mozjs_anon_sym_CARET,
      mozjs_anon_sym_PIPE, mozjs_anon_sym_PLUS, mozjs_anon_sym_DASH, mozjs_anon_sym_SLASH,
      mozjs_anon_sym_PERCENT, mozjs_anon_sym_STAR_STAR, mozjs_anon_sym_EQ_EQ,
      mozjs_anon_sym_BANG_EQ, mozjs_anon_sym_QMARK_QMARK]"

definition mozjs_small_run_10136 :: "nat list" where
  "mozjs_small_run_10136 =
    [3, 5, 2, mozjs_sym_html_comment, mozjs_sym_comment, 1464, 21, mozjs_anon_sym_STAR,
      mozjs_anon_sym_in, mozjs_anon_sym_EQ, mozjs_anon_sym_LT, mozjs_anon_sym_GT,
      mozjs_anon_sym_AMP_AMP, mozjs_anon_sym_PIPE_PIPE, mozjs_anon_sym_GT_GT,
      mozjs_anon_sym_GT_GT_GT, mozjs_anon_sym_LT_LT, mozjs_anon_sym_AMP, mozjs_anon_sym_CARET,
      mozjs_anon_sym_PIPE, mozjs_anon_sym_PLUS, mozjs_anon_sym_DASH, mozjs_anon_sym_SLASH,
      mozjs_anon_sym_PERCENT, mozjs_anon_sym_STAR_STAR, mozjs_anon_sym_EQ_EQ,
      mozjs_anon_sym_BANG_EQ, mozjs_anon_sym_QMARK_QMARK, 1466, 33,
      mozjs_sym__automatic_semicolon, mozjs_sym__ternary_qmark, mozjs_anon_sym_COMMA,
      mozjs_anon_sym_RBRACE, mozjs_anon_sym_of, mozjs_anon_sym_LPAREN, mozjs_anon_sym_SEMI,
      mozjs_anon_sym_LBRACK, mozjs_anon_sym_DOT, mozjs_sym_optional_chain,
      mozjs_anon_sym_PLUS_EQ, mozjs_anon_sym_DASH_EQ, mozjs_anon_sym_STAR_EQ,
      mozjs_anon_sym_SLASH_EQ, mozjs_anon_sym_PERCENT_EQ, mozjs_anon_sym_CARET_EQ,
      mozjs_anon_sym_AMP_EQ, mozjs_anon_sym_PIPE_EQ, mozjs_anon_sym_GT_GT_EQ,
      mozjs_anon_sym_GT_GT_GT_EQ, mozjs_anon_sym_LT_LT_EQ, mozjs_anon_sym_STAR_STAR_EQ,
      mozjs_anon_sym_AMP_AMP_EQ, mozjs_anon_sym_PIPE_PIPE_EQ, mozjs_anon_sym_QMARK_QMARK_EQ,
      mozjs_anon_sym_LT_EQ, mozjs_anon_sym_EQ_EQ_EQ, mozjs_anon_sym_BANG_EQ_EQ,
      mozjs_anon_sym_GT_EQ, mozjs_anon_sym_instanceof, mozjs_anon_sym_PLUS_PLUS,
      mozjs_anon_sym_DASH_DASH, mozjs_anon_sym_BQUOTE]"

definition mozjs_small_run_10199 :: "nat list" where
  "mozjs_small_run_10199 =
    [7, 342, 1, mozjs_anon_sym_EQ_GT, 497, 1, mozjs_anon_sym_COLON, 499, 1, mozjs_anon_sym_EQ, 5,
      2, mozjs_sym_html_comment, mozjs_sym_comment, 344, 15, mozjs_anon_sym_PLUS_EQ,
      mozjs_anon_sym_DASH_EQ, mozjs_anon_sym_STAR_EQ, mozjs_anon_sym_SLASH_EQ,
      mozjs_anon_sym_PERCENT_EQ, mozjs_anon_sym_CARET_EQ, mozjs_anon_sym_AMP_EQ,
      mozjs_anon_sym_PIPE_EQ, mozjs_anon_sym_GT_GT_EQ, mozjs_anon_sym_GT_GT_GT_EQ,
      mozjs_anon_sym_LT_LT_EQ, mozjs_anon_sym_STAR_STAR_EQ, mozjs_anon_sym_AMP_AMP_EQ,
      mozjs_anon_sym_PIPE_PIPE_EQ, mozjs_anon_sym_QMARK_QMARK_EQ, 311, 16,
      mozjs_sym__automatic_semicolon, mozjs_sym__ternary_qmark, mozjs_anon_sym_COMMA,
      mozjs_anon_sym_LPAREN, mozjs_anon_sym_SEMI, mozjs_anon_sym_LBRACK, mozjs_anon_sym_DOT,
      mozjs_sym_optional_chain, mozjs_anon_sym_LT_EQ, mozjs_anon_sym_EQ_EQ_EQ,
      mozjs_anon_sym_BANG_EQ_EQ, mozjs_anon_sym_GT_EQ, mozjs_anon_sym_instanceof,
      mozjs_anon_sym_PLUS_PLUS, mozjs_anon_sym_DASH_DASH, mozjs_anon_sym_BQUOTE, 307, 20,
      mozjs_anon_sym_STAR, mozjs_anon_sym_in, mozjs_anon_sym_LT, mozjs_anon_sym_GT,
      mozjs_anon_sym_AMP_AMP, mozjs_anon_sym_PIPE_PIPE, mozjs_anon_sym_GT_GT,
      mozjs_anon_sym_GT_GT_GT, mozjs_anon_sym_LT_LT, mozjs_anon_sym_AMP, mozjs_anon_sym_CARET,
      mozjs_anon_sym_PIPE, mozjs_anon_sym_PLUS, mozjs_anon_sym_DASH, mozjs_anon_sym_SLASH,
      mozjs_anon_sym_PERCENT, mozjs_anon_sym_STAR_STAR, mozjs_anon_sym_EQ_EQ,
      mozjs_anon_sym_BANG_EQ, mozjs_anon_sym_QMARK_QMARK]"

definition mozjs_small_run_10270 :: "nat list" where
  "mozjs_small_run_10270 =
    [3, 5, 2, mozjs_sym_html_comment, mozjs_sym_comment, 1468, 21, mozjs_anon_sym_STAR,
      mozjs_anon_sym_in, mozjs_anon_sym_EQ, mozjs_anon_sym_LT, mozjs_anon_sym_GT,
      mozjs_anon_sym_AMP_AMP, mozjs_anon_sym_PIPE_PIPE, mozjs_anon_sym_GT_GT,
      mozjs_anon_sym_GT_GT_GT, mozjs_anon_sym_LT_LT, mozjs_anon_sym_AMP, mozjs_anon_sym_CARET,
      mozjs_anon_sym_PIPE, mozjs_anon_sym_PLUS, mozjs_anon_sym_DASH, mozjs_anon_sym_SLASH,
      mozjs_anon_sym_PERCENT, mozjs_anon_sym_STAR_STAR, mozjs_anon_sym_EQ_EQ,
      mozjs_anon_sym_BANG_EQ, mozjs_anon_sym_QMARK_QMARK, 1470, 33,
      mozjs_sym__automatic_semicolon, mozjs_sym__ternary_qmark, mozjs_anon_sym_COMMA,
      mozjs_anon_sym_RBRACE, mozjs_anon_sym_of, mozjs_anon_sym_LPAREN, mozjs_anon_sym_SEMI,
      mozjs_anon_sym_LBRACK, mozjs_anon_sym_DOT, mozjs_sym_optional_chain,
      mozjs_anon_sym_PLUS_EQ, mozjs_anon_sym_DASH_EQ, mozjs_anon_sym_STAR_EQ,
      mozjs_anon_sym_SLASH_EQ, mozjs_anon_sym_PERCENT_EQ, mozjs_anon_sym_CARET_EQ,
      mozjs_anon_sym_AMP_EQ, mozjs_anon_sym_PIPE_EQ, mozjs_anon_sym_GT_GT_EQ,
      mozjs_anon_sym_GT_GT_GT_EQ, mozjs_anon_sym_LT_LT_EQ, mozjs_anon_sym_STAR_STAR_EQ,
      mozjs_anon_sym_AMP_AMP_EQ, mozjs_anon_sym_PIPE_PIPE_EQ, mozjs_anon_sym_QMARK_QMARK_EQ,
      mozjs_anon_sym_LT_EQ, mozjs_anon_sym_EQ_EQ_EQ, mozjs_anon_sym_BANG_EQ_EQ,
      mozjs_anon_sym_GT_EQ, mozjs_anon_sym_instanceof, mozjs_anon_sym_PLUS_PLUS,
      mozjs_anon_sym_DASH_DASH, mozjs_anon_sym_BQUOTE]"

definition mozjs_small_run_10333 :: "nat list" where
  "mozjs_small_run_10333 =
    [6, 471, 1, mozjs_anon_sym_EQ, 563, 1, mozjs_anon_sym_EQ_GT, 5, 2, mozjs_sym_html_comment,
      mozjs_sym_comment, 344, 15, mozjs_anon_sym_PLUS_EQ, mozjs_anon_sym_DASH_EQ,
      mozjs_anon_sym_STAR_EQ, mozjs_anon_sym_SLASH_EQ, mozjs_anon_sym_PERCENT_EQ,
      mozjs_anon_sym_CARET_EQ, mozjs_anon_sym_AMP_EQ, mozjs_anon_sym_PIPE_EQ,
      mozjs_anon_sym_GT_GT_EQ, mozjs_anon_sym_GT_GT_GT_EQ, mozjs_anon_sym_LT_LT_EQ,
      mozjs_anon_sym_STAR_STAR_EQ, mozjs_anon_sym_AMP_AMP_EQ, mozjs_anon_sym_PIPE_PIPE_EQ,
      mozjs_anon_sym_QMARK_QMARK_EQ, 311, 17, mozjs_sym__automatic_semicolon,
      mozjs_sym__ternary_qmark, mozjs_anon_sym_COMMA, mozjs_anon_sym_of, mozjs_anon_sym_LPAREN,
      mozjs_anon_sym_SEMI, mozjs_anon_sym_LBRACK, mozjs_anon_sym_DOT, mozjs_sym_optional_chain,
      mozjs_anon_sym_LT_EQ, mozjs_anon_sym_EQ_EQ_EQ, mozjs_anon_sym_BANG_EQ_EQ,
      mozjs_anon_sym_GT_EQ, mozjs_anon_sym_instanceof, mozjs_anon_sym_PLUS_PLUS,
      mozjs_anon_sym_DASH_DASH, mozjs_anon_sym_BQUOTE, 307, 20, mozjs_anon_sym_STAR,
      mozjs_anon_sym_in, mozjs_anon_sym_LT, mozjs_anon_sym_GT, mozjs_anon_sym_AMP_AMP,
      mozjs_anon_sym_PIPE_PIPE, mozjs_anon_sym_GT_GT, mozjs_anon_sym_GT_GT_GT,
      mozjs_anon_sym_LT_LT, mozjs_anon_sym_AMP, mozjs_anon_sym_CARET, mozjs_anon_sym_PIPE,
      mozjs_anon_sym_PLUS, mozjs_anon_sym_DASH, mozjs_anon_sym_SLASH, mozjs_anon_sym_PERCENT,
      mozjs_anon_sym_STAR_STAR, mozjs_anon_sym_EQ_EQ, mozjs_anon_sym_BANG_EQ,
      mozjs_anon_sym_QMARK_QMARK]"

definition mozjs_small_run_10402 :: "nat list" where
  "mozjs_small_run_10402 =
    [3, 5, 2, mozjs_sym_html_comment, mozjs_sym_comment, 1448, 21, mozjs_anon_sym_STAR,
      mozjs_anon_sym_in, mozjs_anon_sym_EQ, mozjs_anon_sym_LT, mozjs_anon_sym_GT,
      mozjs_anon_sym_AMP_AMP, mozjs_anon_sym_PIPE_PIPE, mozjs_anon_sym_GT_GT,
      mozjs_anon_sym_GT_GT_GT, mozjs_anon_sym_LT_LT, mozjs_anon_sym_AMP, mozjs_anon_sym_CARET,
      mozjs_anon_sym_PIPE, mozjs_anon_sym_PLUS, mozjs_anon_sym_DASH, mozjs_anon_sym_SLASH,
      mozjs_anon_sym_PERCENT, mozjs_anon_sym_STAR_STAR, mozjs_anon_sym_EQ_EQ,
      mozjs_anon_sym_BANG_EQ, mozjs_anon_sym_QMARK_QMARK, 1450, 33,
      mozjs_sym__automatic_semicolon, mozjs_sym__ternary_qmark, mozjs_anon_sym_COMMA,
      mozjs_anon_sym_RBRACE, mozjs_anon_sym_of, mozjs_anon_sym_LPAREN, mozjs_anon_sym_SEMI,
      mozjs_anon_sym_LBRACK, mozjs_anon_sym_DOT, mozjs_sym_optional_chain,
      mozjs_anon_sym_PLUS_EQ, mozjs_anon_sym_DASH_EQ, mozjs_anon_sym_STAR_EQ,
      mozjs_anon_sym_SLASH_EQ, mozjs_anon_sym_PERCENT_EQ, mozjs_anon_sym_CARET_EQ,
      mozjs_anon_sym_AMP_EQ, mozjs_anon_sym_PIPE_EQ, mozjs_anon_sym_GT_GT_EQ,
      mozjs_anon_sym_GT_GT_GT_EQ, mozjs_anon_sym_LT_LT_EQ, mozjs_anon_sym_STAR_STAR_EQ,
      mozjs_anon_sym_AMP_AMP_EQ, mozjs_anon_sym_PIPE_PIPE_EQ, mozjs_anon_sym_QMARK_QMARK_EQ,
      mozjs_anon_sym_LT_EQ, mozjs_anon_sym_EQ_EQ_EQ, mozjs_anon_sym_BANG_EQ_EQ,
      mozjs_anon_sym_GT_EQ, mozjs_anon_sym_instanceof, mozjs_anon_sym_PLUS_PLUS,
      mozjs_anon_sym_DASH_DASH, mozjs_anon_sym_BQUOTE]"

definition mozjs_small_run_10465 :: "nat list" where
  "mozjs_small_run_10465 =
    [3, 5, 2, mozjs_sym_html_comment, mozjs_sym_comment, 1452, 21, mozjs_anon_sym_STAR,
      mozjs_anon_sym_in, mozjs_anon_sym_EQ, mozjs_anon_sym_LT, mozjs_anon_sym_GT,
      mozjs_anon_sym_AMP_AMP, mozjs_anon_sym_PIPE_PIPE, mozjs_anon_sym_GT_GT,
      mozjs_anon_sym_GT_GT_GT, mozjs_anon_sym_LT_LT, mozjs_anon_sym_AMP, mozjs_anon_sym_CARET,
      mozjs_anon_sym_PIPE, mozjs_anon_sym_PLUS, mozjs_anon_sym_DASH, mozjs_anon_sym_SLASH,
      mozjs_anon_sym_PERCENT, mozjs_anon_sym_STAR_STAR, mozjs_anon_sym_EQ_EQ,
      mozjs_anon_sym_BANG_EQ, mozjs_anon_sym_QMARK_QMARK, 1454, 33,
      mozjs_sym__automatic_semicolon, mozjs_sym__ternary_qmark, mozjs_anon_sym_COMMA,
      mozjs_anon_sym_RBRACE, mozjs_anon_sym_of, mozjs_anon_sym_LPAREN, mozjs_anon_sym_SEMI,
      mozjs_anon_sym_LBRACK, mozjs_anon_sym_DOT, mozjs_sym_optional_chain,
      mozjs_anon_sym_PLUS_EQ, mozjs_anon_sym_DASH_EQ, mozjs_anon_sym_STAR_EQ,
      mozjs_anon_sym_SLASH_EQ, mozjs_anon_sym_PERCENT_EQ, mozjs_anon_sym_CARET_EQ,
      mozjs_anon_sym_AMP_EQ, mozjs_anon_sym_PIPE_EQ, mozjs_anon_sym_GT_GT_EQ,
      mozjs_anon_sym_GT_GT_GT_EQ, mozjs_anon_sym_LT_LT_EQ, mozjs_anon_sym_STAR_STAR_EQ,
      mozjs_anon_sym_AMP_AMP_EQ, mozjs_anon_sym_PIPE_PIPE_EQ, mozjs_anon_sym_QMARK_QMARK_EQ,
      mozjs_anon_sym_LT_EQ, mozjs_anon_sym_EQ_EQ_EQ, mozjs_anon_sym_BANG_EQ_EQ,
      mozjs_anon_sym_GT_EQ, mozjs_anon_sym_instanceof, mozjs_anon_sym_PLUS_PLUS,
      mozjs_anon_sym_DASH_DASH, mozjs_anon_sym_BQUOTE]"

definition mozjs_small_run_10528 :: "nat list" where
  "mozjs_small_run_10528 =
    [6, 342, 1, mozjs_anon_sym_EQ_GT, 471, 1, mozjs_anon_sym_EQ, 5, 2, mozjs_sym_html_comment,
      mozjs_sym_comment, 344, 15, mozjs_anon_sym_PLUS_EQ, mozjs_anon_sym_DASH_EQ,
      mozjs_anon_sym_STAR_EQ, mozjs_anon_sym_SLASH_EQ, mozjs_anon_sym_PERCENT_EQ,
      mozjs_anon_sym_CARET_EQ, mozjs_anon_sym_AMP_EQ, mozjs_anon_sym_PIPE_EQ,
      mozjs_anon_sym_GT_GT_EQ, mozjs_anon_sym_GT_GT_GT_EQ, mozjs_anon_sym_LT_LT_EQ,
      mozjs_anon_sym_STAR_STAR_EQ, mozjs_anon_sym_AMP_AMP_EQ, mozjs_anon_sym_PIPE_PIPE_EQ,
      mozjs_anon_sym_QMARK_QMARK_EQ, 311, 17, mozjs_sym__automatic_semicolon,
      mozjs_sym__ternary_qmark, mozjs_anon_sym_COMMA, mozjs_anon_sym_RBRACE,
      mozjs_anon_sym_LPAREN, mozjs_anon_sym_SEMI, mozjs_anon_sym_LBRACK, mozjs_anon_sym_DOT,
      mozjs_sym_optional_chain, mozjs_anon_sym_LT_EQ, mozjs_anon_sym_EQ_EQ_EQ,
      mozjs_anon_sym_BANG_EQ_EQ, mozjs_anon_sym_GT_EQ, mozjs_anon_sym_instanceof,
      mozjs_anon_sym_PLUS_PLUS, mozjs_anon_sym_DASH_DASH, mozjs_anon_sym_BQUOTE, 307, 20,
      mozjs_anon_sym_STAR, mozjs_anon_sym_in, mozjs_anon_sym_LT, mozjs_anon_sym_GT,
      mozjs_anon_sym_AMP_AMP, mozjs_anon_sym_PIPE_PIPE, mozjs_anon_sym_GT_GT,
      mozjs_anon_sym_GT_GT_GT, mozjs_anon_sym_LT_LT, mozjs_anon_sym_AMP, mozjs_anon_sym_CARET,
      mozjs_anon_sym_PIPE, mozjs_anon_sym_PLUS, mozjs_anon_sym_DASH, mozjs_anon_sym_SLASH,
      mozjs_anon_sym_PERCENT, mozjs_anon_sym_STAR_STAR, mozjs_anon_sym_EQ_EQ,
      mozjs_anon_sym_BANG_EQ, mozjs_anon_sym_QMARK_QMARK]"

definition mozjs_small_run_10597 :: "nat list" where
  "mozjs_small_run_10597 =
    [7, 342, 1, mozjs_anon_sym_EQ_GT, 499, 1, mozjs_anon_sym_EQ, 501, 1, mozjs_anon_sym_COLON, 5,
      2, mozjs_sym_html_comment, mozjs_sym_comment, 344, 15, mozjs_anon_sym_PLUS_EQ,
      mozjs_anon_sym_DASH_EQ, mozjs_anon_sym_STAR_EQ, mozjs_anon_sym_SLASH_EQ,
      mozjs_anon_sym_PERCENT_EQ, mozjs_anon_sym_CARET_EQ, mozjs_anon_sym_AMP_EQ,
      mozjs_anon_sym_PIPE_EQ, mozjs_anon_sym_GT_GT_EQ, mozjs_anon_sym_GT_GT_GT_EQ,
      mozjs_anon_sym_LT_LT_EQ, mozjs_anon_sym_STAR_STAR_EQ, mozjs_anon_sym_AMP_AMP_EQ,
      mozjs_anon_sym_PIPE_PIPE_EQ, mozjs_anon_sym_QMARK_QMARK_EQ, 311, 16,
      mozjs_sym__automatic_semicolon, mozjs_sym__ternary_qmark, mozjs_anon_sym_COMMA,
      mozjs_anon_sym_LPAREN, mozjs_anon_sym_SEMI, mozjs_anon_sym_LBRACK, mozjs_anon_sym_DOT,
      mozjs_sym_optional_chain, mozjs_anon_sym_LT_EQ, mozjs_anon_sym_EQ_EQ_EQ,
      mozjs_anon_sym_BANG_EQ_EQ, mozjs_anon_sym_GT_EQ, mozjs_anon_sym_instanceof,
      mozjs_anon_sym_PLUS_PLUS, mozjs_anon_sym_DASH_DASH, mozjs_anon_sym_BQUOTE, 307, 20,
      mozjs_anon_sym_STAR, mozjs_anon_sym_in, mozjs_anon_sym_LT, mozjs_anon_sym_GT,
      mozjs_anon_sym_AMP_AMP, mozjs_anon_sym_PIPE_PIPE, mozjs_anon_sym_GT_GT,
      mozjs_anon_sym_GT_GT_GT, mozjs_anon_sym_LT_LT, mozjs_anon_sym_AMP, mozjs_anon_sym_CARET,
      mozjs_anon_sym_PIPE, mozjs_anon_sym_PLUS, mozjs_anon_sym_DASH, mozjs_anon_sym_SLASH,
      mozjs_anon_sym_PERCENT, mozjs_anon_sym_STAR_STAR, mozjs_anon_sym_EQ_EQ,
      mozjs_anon_sym_BANG_EQ, mozjs_anon_sym_QMARK_QMARK]"

definition mozjs_small_run_10668 :: "nat list" where
  "mozjs_small_run_10668 =
    [7, 417, 1, mozjs_anon_sym_EQ_GT, 541, 1, mozjs_anon_sym_EQ, 5, 2, mozjs_sym_html_comment,
      mozjs_sym_comment, 538, 4, mozjs_anon_sym_COMMA, mozjs_anon_sym_RBRACE,
      mozjs_anon_sym_RPAREN, mozjs_anon_sym_RBRACK, 311, 13, mozjs_sym__ternary_qmark,
      mozjs_anon_sym_LPAREN, mozjs_anon_sym_LBRACK, mozjs_anon_sym_DOT, mozjs_sym_optional_chain,
      mozjs_anon_sym_LT_EQ, mozjs_anon_sym_EQ_EQ_EQ, mozjs_anon_sym_BANG_EQ_EQ,
      mozjs_anon_sym_GT_EQ, mozjs_anon_sym_instanceof, mozjs_anon_sym_PLUS_PLUS,
      mozjs_anon_sym_DASH_DASH, mozjs_anon_sym_BQUOTE, 344, 15, mozjs_anon_sym_PLUS_EQ,
      mozjs_anon_sym_DASH_EQ, mozjs_anon_sym_STAR_EQ, mozjs_anon_sym_SLASH_EQ,
      mozjs_anon_sym_PERCENT_EQ, mozjs_anon_sym_CARET_EQ, mozjs_anon_sym_AMP_EQ,
      mozjs_anon_sym_PIPE_EQ, mozjs_anon_sym_GT_GT_EQ, mozjs_anon_sym_GT_GT_GT_EQ,
      mozjs_anon_sym_LT_LT_EQ, mozjs_anon_sym_STAR_STAR_EQ, mozjs_anon_sym_AMP_AMP_EQ,
      mozjs_anon_sym_PIPE_PIPE_EQ, mozjs_anon_sym_QMARK_QMARK_EQ, 307, 20, mozjs_anon_sym_STAR,
      mozjs_anon_sym_in, mozjs_anon_sym_LT, mozjs_anon_sym_GT, mozjs_anon_sym_AMP_AMP,
      mozjs_anon_sym_PIPE_PIPE, mozjs_anon_sym_GT_GT, mozjs_anon_sym_GT_GT_GT,
      mozjs_anon_sym_LT_LT, mozjs_anon_sym_AMP, mozjs_anon_sym_CARET, mozjs_anon_sym_PIPE,
      mozjs_anon_sym_PLUS, mozjs_anon_sym_DASH, mozjs_anon_sym_SLASH, mozjs_anon_sym_PERCENT,
      mozjs_anon_sym_STAR_STAR, mozjs_anon_sym_EQ_EQ, mozjs_anon_sym_BANG_EQ,
      mozjs_anon_sym_QMARK_QMARK]"

definition mozjs_small_run_10739 :: "nat list" where
  "mozjs_small_run_10739 =
    [6, 1444, 1, mozjs_anon_sym_EQ_GT, 1540, 1, mozjs_anon_sym_EQ, 5, 2, mozjs_sym_html_comment,
      mozjs_sym_comment, 1446, 15, mozjs_anon_sym_PLUS_EQ, mozjs_anon_sym_DASH_EQ,
      mozjs_anon_sym_STAR_EQ, mozjs_anon_sym_SLASH_EQ, mozjs_anon_sym_PERCENT_EQ,
      mozjs_anon_sym_CARET_EQ, mozjs_anon_sym_AMP_EQ, mozjs_anon_sym_PIPE_EQ,
      mozjs_anon_sym_GT_GT_EQ, mozjs_anon_sym_GT_GT_GT_EQ, mozjs_anon_sym_LT_LT_EQ,
      mozjs_anon_sym_STAR_STAR_EQ, mozjs_anon_sym_AMP_AMP_EQ, mozjs_anon_sym_PIPE_PIPE_EQ,
      mozjs_anon_sym_QMARK_QMARK_EQ, 1437, 17, mozjs_sym__automatic_semicolon,
      mozjs_sym__ternary_qmark, mozjs_anon_sym_COMMA, mozjs_anon_sym_RBRACE,
      mozjs_anon_sym_LPAREN, mozjs_anon_sym_SEMI, mozjs_anon_sym_LBRACK, mozjs_anon_sym_DOT,
      mozjs_sym_optional_chain, mozjs_anon_sym_LT_EQ, mozjs_anon_sym_EQ_EQ_EQ,
      mozjs_anon_sym_BANG_EQ_EQ, mozjs_anon_sym_GT_EQ, mozjs_anon_sym_instanceof,
      mozjs_anon_sym_PLUS_PLUS, mozjs_anon_sym_DASH_DASH, mozjs_anon_sym_BQUOTE, 1435, 20,
      mozjs_anon_sym_STAR, mozjs_anon_sym_in, mozjs_anon_sym_LT, mozjs_anon_sym_GT,
      mozjs_anon_sym_AMP_AMP, mozjs_anon_sym_PIPE_PIPE, mozjs_anon_sym_GT_GT,
      mozjs_anon_sym_GT_GT_GT, mozjs_anon_sym_LT_LT, mozjs_anon_sym_AMP, mozjs_anon_sym_CARET,
      mozjs_anon_sym_PIPE, mozjs_anon_sym_PLUS, mozjs_anon_sym_DASH, mozjs_anon_sym_SLASH,
      mozjs_anon_sym_PERCENT, mozjs_anon_sym_STAR_STAR, mozjs_anon_sym_EQ_EQ,
      mozjs_anon_sym_BANG_EQ, mozjs_anon_sym_QMARK_QMARK]"

definition mozjs_small_run_10808 :: "nat list" where
  "mozjs_small_run_10808 =
    [7, 471, 1, mozjs_anon_sym_EQ, 534, 1, mozjs_anon_sym_EQ_GT, 5, 2, mozjs_sym_html_comment,
      mozjs_sym_comment, 536, 4, mozjs_anon_sym_COMMA, mozjs_anon_sym_RBRACE,
      mozjs_anon_sym_RPAREN, mozjs_anon_sym_RBRACK, 311, 13, mozjs_sym__ternary_qmark,
      mozjs_anon_sym_LPAREN, mozjs_anon_sym_LBRACK, mozjs_anon_sym_DOT, mozjs_sym_optional_chain,
      mozjs_anon_sym_LT_EQ, mozjs_anon_sym_EQ_EQ_EQ, mozjs_anon_sym_BANG_EQ_EQ,
      mozjs_anon_sym_GT_EQ, mozjs_anon_sym_instanceof, mozjs_anon_sym_PLUS_PLUS,
      mozjs_anon_sym_DASH_DASH, mozjs_anon_sym_BQUOTE, 344, 15, mozjs_anon_sym_PLUS_EQ,
      mozjs_anon_sym_DASH_EQ, mozjs_anon_sym_STAR_EQ, mozjs_anon_sym_SLASH_EQ,
      mozjs_anon_sym_PERCENT_EQ, mozjs_anon_sym_CARET_EQ, mozjs_anon_sym_AMP_EQ,
      mozjs_anon_sym_PIPE_EQ, mozjs_anon_sym_GT_GT_EQ, mozjs_anon_sym_GT_GT_GT_EQ,
      mozjs_anon_sym_LT_LT_EQ, mozjs_anon_sym_STAR_STAR_EQ, mozjs_anon_sym_AMP_AMP_EQ,
      mozjs_anon_sym_PIPE_PIPE_EQ, mozjs_anon_sym_QMARK_QMARK_EQ, 307, 20, mozjs_anon_sym_STAR,
      mozjs_anon_sym_in, mozjs_anon_sym_LT, mozjs_anon_sym_GT, mozjs_anon_sym_AMP_AMP,
      mozjs_anon_sym_PIPE_PIPE, mozjs_anon_sym_GT_GT, mozjs_anon_sym_GT_GT_GT,
      mozjs_anon_sym_LT_LT, mozjs_anon_sym_AMP, mozjs_anon_sym_CARET, mozjs_anon_sym_PIPE,
      mozjs_anon_sym_PLUS, mozjs_anon_sym_DASH, mozjs_anon_sym_SLASH, mozjs_anon_sym_PERCENT,
      mozjs_anon_sym_STAR_STAR, mozjs_anon_sym_EQ_EQ, mozjs_anon_sym_BANG_EQ,
      mozjs_anon_sym_QMARK_QMARK]"

definition mozjs_small_run_10879 :: "nat list" where
  "mozjs_small_run_10879 =
    [6, 1472, 1, mozjs_anon_sym_EQ, 1542, 1, mozjs_anon_sym_EQ_GT, 5, 2, mozjs_sym_html_comment,
      mozjs_sym_comment, 1446, 15, mozjs_anon_sym_PLUS_EQ, mozjs_anon_sym_DASH_EQ,
      mozjs_anon_sym_STAR_EQ, mozjs_anon_sym_SLASH_EQ, mozjs_anon_sym_PERCENT_EQ,
      mozjs_anon_sym_CARET_EQ, mozjs_anon_sym_AMP_EQ, mozjs_anon_sym_PIPE_EQ,
      mozjs_anon_sym_GT_GT_EQ, mozjs_anon_sym_GT_GT_GT_EQ, mozjs_anon_sym_LT_LT_EQ,
      mozjs_anon_sym_STAR_STAR_EQ, mozjs_anon_sym_AMP_AMP_EQ, mozjs_anon_sym_PIPE_PIPE_EQ,
      mozjs_anon_sym_QMARK_QMARK_EQ, 1437, 17, mozjs_sym__automatic_semicolon,
      mozjs_sym__ternary_qmark, mozjs_anon_sym_COMMA, mozjs_anon_sym_of, mozjs_anon_sym_LPAREN,
      mozjs_anon_sym_SEMI, mozjs_anon_sym_LBRACK, mozjs_anon_sym_DOT, mozjs_sym_optional_chain,
      mozjs_anon_sym_LT_EQ, mozjs_anon_sym_EQ_EQ_EQ, mozjs_anon_sym_BANG_EQ_EQ,
      mozjs_anon_sym_GT_EQ, mozjs_anon_sym_instanceof, mozjs_anon_sym_PLUS_PLUS,
      mozjs_anon_sym_DASH_DASH, mozjs_anon_sym_BQUOTE, 1435, 20, mozjs_anon_sym_STAR,
      mozjs_anon_sym_in, mozjs_anon_sym_LT, mozjs_anon_sym_GT, mozjs_anon_sym_AMP_AMP,
      mozjs_anon_sym_PIPE_PIPE, mozjs_anon_sym_GT_GT, mozjs_anon_sym_GT_GT_GT,
      mozjs_anon_sym_LT_LT, mozjs_anon_sym_AMP, mozjs_anon_sym_CARET, mozjs_anon_sym_PIPE,
      mozjs_anon_sym_PLUS, mozjs_anon_sym_DASH, mozjs_anon_sym_SLASH, mozjs_anon_sym_PERCENT,
      mozjs_anon_sym_STAR_STAR, mozjs_anon_sym_EQ_EQ, mozjs_anon_sym_BANG_EQ,
      mozjs_anon_sym_QMARK_QMARK]"

definition mozjs_small_run_10948 :: "nat list" where
  "mozjs_small_run_10948 =
    [7, 1472, 1, mozjs_anon_sym_EQ, 1538, 1, mozjs_anon_sym_EQ_GT, 5, 2, mozjs_sym_html_comment,
      mozjs_sym_comment, 1544, 4, mozjs_anon_sym_COMMA, mozjs_anon_sym_RBRACE,
      mozjs_anon_sym_RPAREN, mozjs_anon_sym_RBRACK, 1437, 13, mozjs_sym__ternary_qmark,
      mozjs_anon_sym_LPAREN, mozjs_anon_sym_LBRACK, mozjs_anon_sym_DOT, mozjs_sym_optional_chain,
      mozjs_anon_sym_LT_EQ, mozjs_anon_sym_EQ_EQ_EQ, mozjs_anon_sym_BANG_EQ_EQ,
      mozjs_anon_sym_GT_EQ, mozjs_anon_sym_instanceof, mozjs_anon_sym_PLUS_PLUS,
      mozjs_anon_sym_DASH_DASH, mozjs_anon_sym_BQUOTE, 1446, 15, mozjs_anon_sym_PLUS_EQ,
      mozjs_anon_sym_DASH_EQ, mozjs_anon_sym_STAR_EQ, mozjs_anon_sym_SLASH_EQ,
      mozjs_anon_sym_PERCENT_EQ, mozjs_anon_sym_CARET_EQ, mozjs_anon_sym_AMP_EQ,
      mozjs_anon_sym_PIPE_EQ, mozjs_anon_sym_GT_GT_EQ, mozjs_anon_sym_GT_GT_GT_EQ,
      mozjs_anon_sym_LT_LT_EQ, mozjs_anon_sym_STAR_STAR_EQ, mozjs_anon_sym_AMP_AMP_EQ,
      mozjs_anon_sym_PIPE_PIPE_EQ, mozjs_anon_sym_QMARK_QMARK_EQ, 1435, 20, mozjs_anon_sym_STAR,
      mozjs_anon_sym_in, mozjs_anon_sym_LT, mozjs_anon_sym_GT, mozjs_anon_sym_AMP_AMP,
      mozjs_anon_sym_PIPE_PIPE, mozjs_anon_sym_GT_GT, mozjs_anon_sym_GT_GT_GT,
      mozjs_anon_sym_LT_LT, mozjs_anon_sym_AMP, mozjs_anon_sym_CARET, mozjs_anon_sym_PIPE,
      mozjs_anon_sym_PLUS, mozjs_anon_sym_DASH, mozjs_anon_sym_SLASH, mozjs_anon_sym_PERCENT,
      mozjs_anon_sym_STAR_STAR, mozjs_anon_sym_EQ_EQ, mozjs_anon_sym_BANG_EQ,
      mozjs_anon_sym_QMARK_QMARK]"

definition mozjs_small_run_11019 :: "nat list" where
  "mozjs_small_run_11019 =
    [6, 342, 1, mozjs_anon_sym_EQ_GT, 499, 1, mozjs_anon_sym_EQ, 5, 2, mozjs_sym_html_comment,
      mozjs_sym_comment, 344, 15, mozjs_anon_sym_PLUS_EQ, mozjs_anon_sym_DASH_EQ,
      mozjs_anon_sym_STAR_EQ, mozjs_anon_sym_SLASH_EQ, mozjs_anon_sym_PERCENT_EQ,
      mozjs_anon_sym_CARET_EQ, mozjs_anon_sym_AMP_EQ, mozjs_anon_sym_PIPE_EQ,
      mozjs_anon_sym_GT_GT_EQ, mozjs_anon_sym_GT_GT_GT_EQ, mozjs_anon_sym_LT_LT_EQ,
      mozjs_anon_sym_STAR_STAR_EQ, mozjs_anon_sym_AMP_AMP_EQ, mozjs_anon_sym_PIPE_PIPE_EQ,
      mozjs_anon_sym_QMARK_QMARK_EQ, 311, 17, mozjs_sym__automatic_semicolon,
      mozjs_sym__ternary_qmark, mozjs_anon_sym_COMMA, mozjs_anon_sym_RBRACE,
      mozjs_anon_sym_LPAREN, mozjs_anon_sym_SEMI, mozjs_anon_sym_LBRACK, mozjs_anon_sym_DOT,
      mozjs_sym_optional_chain, mozjs_anon_sym_LT_EQ, mozjs_anon_sym_EQ_EQ_EQ,
      mozjs_anon_sym_BANG_EQ_EQ, mozjs_anon_sym_GT_EQ, mozjs_anon_sym_instanceof,
      mozjs_anon_sym_PLUS_PLUS, mozjs_anon_sym_DASH_DASH, mozjs_anon_sym_BQUOTE, 307, 20,
      mozjs_anon_sym_STAR, mozjs_anon_sym_in, mozjs_anon_sym_LT, mozjs_anon_sym_GT,
      mozjs_anon_sym_AMP_AMP, mozjs_anon_sym_PIPE_PIPE, mozjs_anon_sym_GT_GT,
      mozjs_anon_sym_GT_GT_GT, mozjs_anon_sym_LT_LT, mozjs_anon_sym_AMP, mozjs_anon_sym_CARET,
      mozjs_anon_sym_PIPE, mozjs_anon_sym_PLUS, mozjs_anon_sym_DASH, mozjs_anon_sym_SLASH,
      mozjs_anon_sym_PERCENT, mozjs_anon_sym_STAR_STAR, mozjs_anon_sym_EQ_EQ,
      mozjs_anon_sym_BANG_EQ, mozjs_anon_sym_QMARK_QMARK]"

definition mozjs_small_run_11088 :: "nat list" where
  "mozjs_small_run_11088 =
    [3, 5, 2, mozjs_sym_html_comment, mozjs_sym_comment, 1159, 21, mozjs_anon_sym_STAR,
      mozjs_anon_sym_in, mozjs_anon_sym_EQ, mozjs_anon_sym_LT, mozjs_anon_sym_GT,
      mozjs_anon_sym_AMP_AMP, mozjs_anon_sym_PIPE_PIPE, mozjs_anon_sym_GT_GT,
      mozjs_anon_sym_GT_GT_GT, mozjs_anon_sym_LT_LT, mozjs_anon_sym_AMP, mozjs_anon_sym_CARET,
      mozjs_anon_sym_PIPE, mozjs_anon_sym_PLUS, mozjs_anon_sym_DASH, mozjs_anon_sym_SLASH,
      mozjs_anon_sym_PERCENT, mozjs_anon_sym_STAR_STAR, mozjs_anon_sym_EQ_EQ,
      mozjs_anon_sym_BANG_EQ, mozjs_anon_sym_QMARK_QMARK, 1157, 33,
      mozjs_sym__automatic_semicolon, mozjs_sym__ternary_qmark, mozjs_anon_sym_COMMA,
      mozjs_anon_sym_RBRACE, mozjs_anon_sym_of, mozjs_anon_sym_LPAREN, mozjs_anon_sym_SEMI,
      mozjs_anon_sym_LBRACK, mozjs_anon_sym_DOT, mozjs_sym_optional_chain,
      mozjs_anon_sym_PLUS_EQ, mozjs_anon_sym_DASH_EQ, mozjs_anon_sym_STAR_EQ,
      mozjs_anon_sym_SLASH_EQ, mozjs_anon_sym_PERCENT_EQ, mozjs_anon_sym_CARET_EQ,
      mozjs_anon_sym_AMP_EQ, mozjs_anon_sym_PIPE_EQ, mozjs_anon_sym_GT_GT_EQ,
      mozjs_anon_sym_GT_GT_GT_EQ, mozjs_anon_sym_LT_LT_EQ, mozjs_anon_sym_STAR_STAR_EQ,
      mozjs_anon_sym_AMP_AMP_EQ, mozjs_anon_sym_PIPE_PIPE_EQ, mozjs_anon_sym_QMARK_QMARK_EQ,
      mozjs_anon_sym_LT_EQ, mozjs_anon_sym_EQ_EQ_EQ, mozjs_anon_sym_BANG_EQ_EQ,
      mozjs_anon_sym_GT_EQ, mozjs_anon_sym_instanceof, mozjs_anon_sym_PLUS_PLUS,
      mozjs_anon_sym_DASH_DASH, mozjs_anon_sym_BQUOTE]"

definition mozjs_small_run_11151 :: "nat list" where
  "mozjs_small_run_11151 =
    [3, 5, 2, mozjs_sym_html_comment, mozjs_sym_comment, 1460, 21, mozjs_anon_sym_STAR,
      mozjs_anon_sym_in, mozjs_anon_sym_EQ, mozjs_anon_sym_LT, mozjs_anon_sym_GT,
      mozjs_anon_sym_AMP_AMP, mozjs_anon_sym_PIPE_PIPE, mozjs_anon_sym_GT_GT,
      mozjs_anon_sym_GT_GT_GT, mozjs_anon_sym_LT_LT, mozjs_anon_sym_AMP, mozjs_anon_sym_CARET,
      mozjs_anon_sym_PIPE, mozjs_anon_sym_PLUS, mozjs_anon_sym_DASH, mozjs_anon_sym_SLASH,
      mozjs_anon_sym_PERCENT, mozjs_anon_sym_STAR_STAR, mozjs_anon_sym_EQ_EQ,
      mozjs_anon_sym_BANG_EQ, mozjs_anon_sym_QMARK_QMARK, 1462, 33,
      mozjs_sym__automatic_semicolon, mozjs_sym__ternary_qmark, mozjs_anon_sym_COMMA,
      mozjs_anon_sym_RBRACE, mozjs_anon_sym_of, mozjs_anon_sym_LPAREN, mozjs_anon_sym_SEMI,
      mozjs_anon_sym_LBRACK, mozjs_anon_sym_DOT, mozjs_sym_optional_chain,
      mozjs_anon_sym_PLUS_EQ, mozjs_anon_sym_DASH_EQ, mozjs_anon_sym_STAR_EQ,
      mozjs_anon_sym_SLASH_EQ, mozjs_anon_sym_PERCENT_EQ, mozjs_anon_sym_CARET_EQ,
      mozjs_anon_sym_AMP_EQ, mozjs_anon_sym_PIPE_EQ, mozjs_anon_sym_GT_GT_EQ,
      mozjs_anon_sym_GT_GT_GT_EQ, mozjs_anon_sym_LT_LT_EQ, mozjs_anon_sym_STAR_STAR_EQ,
      mozjs_anon_sym_AMP_AMP_EQ, mozjs_anon_sym_PIPE_PIPE_EQ, mozjs_anon_sym_QMARK_QMARK_EQ,
      mozjs_anon_sym_LT_EQ, mozjs_anon_sym_EQ_EQ_EQ, mozjs_anon_sym_BANG_EQ_EQ,
      mozjs_anon_sym_GT_EQ, mozjs_anon_sym_instanceof, mozjs_anon_sym_PLUS_PLUS,
      mozjs_anon_sym_DASH_DASH, mozjs_anon_sym_BQUOTE]"

definition mozjs_small_run_11214 :: "nat list" where
  "mozjs_small_run_11214 =
    [5, 1472, 1, mozjs_anon_sym_EQ, 5, 2, mozjs_sym_html_comment, mozjs_sym_comment, 1446, 15,
      mozjs_anon_sym_PLUS_EQ, mozjs_anon_sym_DASH_EQ, mozjs_anon_sym_STAR_EQ,
      mozjs_anon_sym_SLASH_EQ, mozjs_anon_sym_PERCENT_EQ, mozjs_anon_sym_CARET_EQ,
      mozjs_anon_sym_AMP_EQ, mozjs_anon_sym_PIPE_EQ, mozjs_anon_sym_GT_GT_EQ,
      mozjs_anon_sym_GT_GT_GT_EQ, mozjs_anon_sym_LT_LT_EQ, mozjs_anon_sym_STAR_STAR_EQ,
      mozjs_anon_sym_AMP_AMP_EQ, mozjs_anon_sym_PIPE_PIPE_EQ, mozjs_anon_sym_QMARK_QMARK_EQ,
      1437, 18, mozjs_sym__automatic_semicolon, mozjs_sym__ternary_qmark, mozjs_anon_sym_COMMA,
      mozjs_anon_sym_RBRACE, mozjs_anon_sym_of, mozjs_anon_sym_LPAREN, mozjs_anon_sym_SEMI,
      mozjs_anon_sym_LBRACK, mozjs_anon_sym_DOT, mozjs_sym_optional_chain, mozjs_anon_sym_LT_EQ,
      mozjs_anon_sym_EQ_EQ_EQ, mozjs_anon_sym_BANG_EQ_EQ, mozjs_anon_sym_GT_EQ,
      mozjs_anon_sym_instanceof, mozjs_anon_sym_PLUS_PLUS, mozjs_anon_sym_DASH_DASH,
      mozjs_anon_sym_BQUOTE, 1435, 20, mozjs_anon_sym_STAR, mozjs_anon_sym_in, mozjs_anon_sym_LT,
      mozjs_anon_sym_GT, mozjs_anon_sym_AMP_AMP, mozjs_anon_sym_PIPE_PIPE, mozjs_anon_sym_GT_GT,
      mozjs_anon_sym_GT_GT_GT, mozjs_anon_sym_LT_LT, mozjs_anon_sym_AMP, mozjs_anon_sym_CARET,
      mozjs_anon_sym_PIPE, mozjs_anon_sym_PLUS, mozjs_anon_sym_DASH, mozjs_anon_sym_SLASH,
      mozjs_anon_sym_PERCENT, mozjs_anon_sym_STAR_STAR, mozjs_anon_sym_EQ_EQ,
      mozjs_anon_sym_BANG_EQ, mozjs_anon_sym_QMARK_QMARK]"

definition mozjs_small_run_11281 :: "nat list" where
  "mozjs_small_run_11281 =
    [7, 531, 1, mozjs_anon_sym_EQ, 534, 1, mozjs_anon_sym_EQ_GT, 5, 2, mozjs_sym_html_comment,
      mozjs_sym_comment, 529, 4, mozjs_anon_sym_COMMA, mozjs_anon_sym_RBRACE,
      mozjs_anon_sym_RPAREN, mozjs_anon_sym_RBRACK, 311, 13, mozjs_sym__ternary_qmark,
      mozjs_anon_sym_LPAREN, mozjs_anon_sym_LBRACK, mozjs_anon_sym_DOT, mozjs_sym_optional_chain,
      mozjs_anon_sym_LT_EQ, mozjs_anon_sym_EQ_EQ_EQ, mozjs_anon_sym_BANG_EQ_EQ,
      mozjs_anon_sym_GT_EQ, mozjs_anon_sym_instanceof, mozjs_anon_sym_PLUS_PLUS,
      mozjs_anon_sym_DASH_DASH, mozjs_anon_sym_BQUOTE, 344, 15, mozjs_anon_sym_PLUS_EQ,
      mozjs_anon_sym_DASH_EQ, mozjs_anon_sym_STAR_EQ, mozjs_anon_sym_SLASH_EQ,
      mozjs_anon_sym_PERCENT_EQ, mozjs_anon_sym_CARET_EQ, mozjs_anon_sym_AMP_EQ,
      mozjs_anon_sym_PIPE_EQ, mozjs_anon_sym_GT_GT_EQ, mozjs_anon_sym_GT_GT_GT_EQ,
      mozjs_anon_sym_LT_LT_EQ, mozjs_anon_sym_STAR_STAR_EQ, mozjs_anon_sym_AMP_AMP_EQ,
      mozjs_anon_sym_PIPE_PIPE_EQ, mozjs_anon_sym_QMARK_QMARK_EQ, 307, 20, mozjs_anon_sym_STAR,
      mozjs_anon_sym_in, mozjs_anon_sym_LT, mozjs_anon_sym_GT, mozjs_anon_sym_AMP_AMP,
      mozjs_anon_sym_PIPE_PIPE, mozjs_anon_sym_GT_GT, mozjs_anon_sym_GT_GT_GT,
      mozjs_anon_sym_LT_LT, mozjs_anon_sym_AMP, mozjs_anon_sym_CARET, mozjs_anon_sym_PIPE,
      mozjs_anon_sym_PLUS, mozjs_anon_sym_DASH, mozjs_anon_sym_SLASH, mozjs_anon_sym_PERCENT,
      mozjs_anon_sym_STAR_STAR, mozjs_anon_sym_EQ_EQ, mozjs_anon_sym_BANG_EQ,
      mozjs_anon_sym_QMARK_QMARK]"

definition mozjs_small_run_11352 :: "nat list" where
  "mozjs_small_run_11352 =
    [7, 501, 1, mozjs_anon_sym_COLON, 1444, 1, mozjs_anon_sym_EQ_GT, 1540, 1, mozjs_anon_sym_EQ,
      5, 2, mozjs_sym_html_comment, mozjs_sym_comment, 1446, 15, mozjs_anon_sym_PLUS_EQ,
      mozjs_anon_sym_DASH_EQ, mozjs_anon_sym_STAR_EQ, mozjs_anon_sym_SLASH_EQ,
      mozjs_anon_sym_PERCENT_EQ, mozjs_anon_sym_CARET_EQ, mozjs_anon_sym_AMP_EQ,
      mozjs_anon_sym_PIPE_EQ, mozjs_anon_sym_GT_GT_EQ, mozjs_anon_sym_GT_GT_GT_EQ,
      mozjs_anon_sym_LT_LT_EQ, mozjs_anon_sym_STAR_STAR_EQ, mozjs_anon_sym_AMP_AMP_EQ,
      mozjs_anon_sym_PIPE_PIPE_EQ, mozjs_anon_sym_QMARK_QMARK_EQ, 1437, 16,
      mozjs_sym__automatic_semicolon, mozjs_sym__ternary_qmark, mozjs_anon_sym_COMMA,
      mozjs_anon_sym_LPAREN, mozjs_anon_sym_SEMI, mozjs_anon_sym_LBRACK, mozjs_anon_sym_DOT,
      mozjs_sym_optional_chain, mozjs_anon_sym_LT_EQ, mozjs_anon_sym_EQ_EQ_EQ,
      mozjs_anon_sym_BANG_EQ_EQ, mozjs_anon_sym_GT_EQ, mozjs_anon_sym_instanceof,
      mozjs_anon_sym_PLUS_PLUS, mozjs_anon_sym_DASH_DASH, mozjs_anon_sym_BQUOTE, 1435, 20,
      mozjs_anon_sym_STAR, mozjs_anon_sym_in, mozjs_anon_sym_LT, mozjs_anon_sym_GT,
      mozjs_anon_sym_AMP_AMP, mozjs_anon_sym_PIPE_PIPE, mozjs_anon_sym_GT_GT,
      mozjs_anon_sym_GT_GT_GT, mozjs_anon_sym_LT_LT, mozjs_anon_sym_AMP, mozjs_anon_sym_CARET,
      mozjs_anon_sym_PIPE, mozjs_anon_sym_PLUS, mozjs_anon_sym_DASH, mozjs_anon_sym_SLASH,
      mozjs_anon_sym_PERCENT, mozjs_anon_sym_STAR_STAR, mozjs_anon_sym_EQ_EQ,
      mozjs_anon_sym_BANG_EQ, mozjs_anon_sym_QMARK_QMARK]"

definition mozjs_small_run_11423 :: "nat list" where
  "mozjs_small_run_11423 =
    [7, 1487, 1, mozjs_anon_sym_EQ_GT, 1549, 1, mozjs_anon_sym_EQ, 5, 2, mozjs_sym_html_comment,
      mozjs_sym_comment, 1546, 4, mozjs_anon_sym_COMMA, mozjs_anon_sym_RBRACE,
      mozjs_anon_sym_RPAREN, mozjs_anon_sym_RBRACK, 1437, 13, mozjs_sym__ternary_qmark,
      mozjs_anon_sym_LPAREN, mozjs_anon_sym_LBRACK, mozjs_anon_sym_DOT, mozjs_sym_optional_chain,
      mozjs_anon_sym_LT_EQ, mozjs_anon_sym_EQ_EQ_EQ, mozjs_anon_sym_BANG_EQ_EQ,
      mozjs_anon_sym_GT_EQ, mozjs_anon_sym_instanceof, mozjs_anon_sym_PLUS_PLUS,
      mozjs_anon_sym_DASH_DASH, mozjs_anon_sym_BQUOTE, 1446, 15, mozjs_anon_sym_PLUS_EQ,
      mozjs_anon_sym_DASH_EQ, mozjs_anon_sym_STAR_EQ, mozjs_anon_sym_SLASH_EQ,
      mozjs_anon_sym_PERCENT_EQ, mozjs_anon_sym_CARET_EQ, mozjs_anon_sym_AMP_EQ,
      mozjs_anon_sym_PIPE_EQ, mozjs_anon_sym_GT_GT_EQ, mozjs_anon_sym_GT_GT_GT_EQ,
      mozjs_anon_sym_LT_LT_EQ, mozjs_anon_sym_STAR_STAR_EQ, mozjs_anon_sym_AMP_AMP_EQ,
      mozjs_anon_sym_PIPE_PIPE_EQ, mozjs_anon_sym_QMARK_QMARK_EQ, 1435, 20, mozjs_anon_sym_STAR,
      mozjs_anon_sym_in, mozjs_anon_sym_LT, mozjs_anon_sym_GT, mozjs_anon_sym_AMP_AMP,
      mozjs_anon_sym_PIPE_PIPE, mozjs_anon_sym_GT_GT, mozjs_anon_sym_GT_GT_GT,
      mozjs_anon_sym_LT_LT, mozjs_anon_sym_AMP, mozjs_anon_sym_CARET, mozjs_anon_sym_PIPE,
      mozjs_anon_sym_PLUS, mozjs_anon_sym_DASH, mozjs_anon_sym_SLASH, mozjs_anon_sym_PERCENT,
      mozjs_anon_sym_STAR_STAR, mozjs_anon_sym_EQ_EQ, mozjs_anon_sym_BANG_EQ,
      mozjs_anon_sym_QMARK_QMARK]"

definition mozjs_small_run_11494 :: "nat list" where
  "mozjs_small_run_11494 =
    [6, 1542, 1, mozjs_anon_sym_EQ_GT, 1552, 1, mozjs_anon_sym_EQ, 5, 2, mozjs_sym_html_comment,
      mozjs_sym_comment, 1446, 15, mozjs_anon_sym_PLUS_EQ, mozjs_anon_sym_DASH_EQ,
      mozjs_anon_sym_STAR_EQ, mozjs_anon_sym_SLASH_EQ, mozjs_anon_sym_PERCENT_EQ,
      mozjs_anon_sym_CARET_EQ, mozjs_anon_sym_AMP_EQ, mozjs_anon_sym_PIPE_EQ,
      mozjs_anon_sym_GT_GT_EQ, mozjs_anon_sym_GT_GT_GT_EQ, mozjs_anon_sym_LT_LT_EQ,
      mozjs_anon_sym_STAR_STAR_EQ, mozjs_anon_sym_AMP_AMP_EQ, mozjs_anon_sym_PIPE_PIPE_EQ,
      mozjs_anon_sym_QMARK_QMARK_EQ, 1437, 17, mozjs_sym__automatic_semicolon,
      mozjs_sym__ternary_qmark, mozjs_anon_sym_COMMA, mozjs_anon_sym_of, mozjs_anon_sym_LPAREN,
      mozjs_anon_sym_SEMI, mozjs_anon_sym_LBRACK, mozjs_anon_sym_DOT, mozjs_sym_optional_chain,
      mozjs_anon_sym_LT_EQ, mozjs_anon_sym_EQ_EQ_EQ, mozjs_anon_sym_BANG_EQ_EQ,
      mozjs_anon_sym_GT_EQ, mozjs_anon_sym_instanceof, mozjs_anon_sym_PLUS_PLUS,
      mozjs_anon_sym_DASH_DASH, mozjs_anon_sym_BQUOTE, 1435, 20, mozjs_anon_sym_STAR,
      mozjs_anon_sym_in, mozjs_anon_sym_LT, mozjs_anon_sym_GT, mozjs_anon_sym_AMP_AMP,
      mozjs_anon_sym_PIPE_PIPE, mozjs_anon_sym_GT_GT, mozjs_anon_sym_GT_GT_GT,
      mozjs_anon_sym_LT_LT, mozjs_anon_sym_AMP, mozjs_anon_sym_CARET, mozjs_anon_sym_PIPE,
      mozjs_anon_sym_PLUS, mozjs_anon_sym_DASH, mozjs_anon_sym_SLASH, mozjs_anon_sym_PERCENT,
      mozjs_anon_sym_STAR_STAR, mozjs_anon_sym_EQ_EQ, mozjs_anon_sym_BANG_EQ,
      mozjs_anon_sym_QMARK_QMARK]"

definition mozjs_small_run_11563 :: "nat list" where
  "mozjs_small_run_11563 =
    [6, 1444, 1, mozjs_anon_sym_EQ_GT, 1472, 1, mozjs_anon_sym_EQ, 5, 2, mozjs_sym_html_comment,
      mozjs_sym_comment, 1446, 15, mozjs_anon_sym_PLUS_EQ, mozjs_anon_sym_DASH_EQ,
      mozjs_anon_sym_STAR_EQ, mozjs_anon_sym_SLASH_EQ, mozjs_anon_sym_PERCENT_EQ,
      mozjs_anon_sym_CARET_EQ, mozjs_anon_sym_AMP_EQ, mozjs_anon_sym_PIPE_EQ,
      mozjs_anon_sym_GT_GT_EQ, mozjs_anon_sym_GT_GT_GT_EQ, mozjs_anon_sym_LT_LT_EQ,
      mozjs_anon_sym_STAR_STAR_EQ, mozjs_anon_sym_AMP_AMP_EQ, mozjs_anon_sym_PIPE_PIPE_EQ,
      mozjs_anon_sym_QMARK_QMARK_EQ, 1437, 17, mozjs_sym__automatic_semicolon,
      mozjs_sym__ternary_qmark, mozjs_anon_sym_COMMA, mozjs_anon_sym_RBRACE,
      mozjs_anon_sym_LPAREN, mozjs_anon_sym_SEMI, mozjs_anon_sym_LBRACK, mozjs_anon_sym_DOT,
      mozjs_sym_optional_chain, mozjs_anon_sym_LT_EQ, mozjs_anon_sym_EQ_EQ_EQ,
      mozjs_anon_sym_BANG_EQ_EQ, mozjs_anon_sym_GT_EQ, mozjs_anon_sym_instanceof,
      mozjs_anon_sym_PLUS_PLUS, mozjs_anon_sym_DASH_DASH, mozjs_anon_sym_BQUOTE, 1435, 20,
      mozjs_anon_sym_STAR, mozjs_anon_sym_in, mozjs_anon_sym_LT, mozjs_anon_sym_GT,
      mozjs_anon_sym_AMP_AMP, mozjs_anon_sym_PIPE_PIPE, mozjs_anon_sym_GT_GT,
      mozjs_anon_sym_GT_GT_GT, mozjs_anon_sym_LT_LT, mozjs_anon_sym_AMP, mozjs_anon_sym_CARET,
      mozjs_anon_sym_PIPE, mozjs_anon_sym_PLUS, mozjs_anon_sym_DASH, mozjs_anon_sym_SLASH,
      mozjs_anon_sym_PERCENT, mozjs_anon_sym_STAR_STAR, mozjs_anon_sym_EQ_EQ,
      mozjs_anon_sym_BANG_EQ, mozjs_anon_sym_QMARK_QMARK]"

definition mozjs_small_run_11632 :: "nat list" where
  "mozjs_small_run_11632 =
    [8, 1485, 1, mozjs_anon_sym_EQ, 1487, 1, mozjs_anon_sym_EQ_GT, 1554, 1, mozjs_anon_sym_of,
      1556, 1, mozjs_anon_sym_in, 5, 2, mozjs_sym_html_comment, mozjs_sym_comment, 1437, 15,
      mozjs_sym__ternary_qmark, mozjs_anon_sym_COMMA, mozjs_anon_sym_LPAREN, mozjs_anon_sym_SEMI,
      mozjs_anon_sym_LBRACK, mozjs_anon_sym_DOT, mozjs_sym_optional_chain, mozjs_anon_sym_LT_EQ,
      mozjs_anon_sym_EQ_EQ_EQ, mozjs_anon_sym_BANG_EQ_EQ, mozjs_anon_sym_GT_EQ,
      mozjs_anon_sym_instanceof, mozjs_anon_sym_PLUS_PLUS, mozjs_anon_sym_DASH_DASH,
      mozjs_anon_sym_BQUOTE, 1446, 15, mozjs_anon_sym_PLUS_EQ, mozjs_anon_sym_DASH_EQ,
      mozjs_anon_sym_STAR_EQ, mozjs_anon_sym_SLASH_EQ, mozjs_anon_sym_PERCENT_EQ,
      mozjs_anon_sym_CARET_EQ, mozjs_anon_sym_AMP_EQ, mozjs_anon_sym_PIPE_EQ,
      mozjs_anon_sym_GT_GT_EQ, mozjs_anon_sym_GT_GT_GT_EQ, mozjs_anon_sym_LT_LT_EQ,
      mozjs_anon_sym_STAR_STAR_EQ, mozjs_anon_sym_AMP_AMP_EQ, mozjs_anon_sym_PIPE_PIPE_EQ,
      mozjs_anon_sym_QMARK_QMARK_EQ, 1435, 19, mozjs_anon_sym_STAR, mozjs_anon_sym_LT,
      mozjs_anon_sym_GT, mozjs_anon_sym_AMP_AMP, mozjs_anon_sym_PIPE_PIPE, mozjs_anon_sym_GT_GT,
      mozjs_anon_sym_GT_GT_GT, mozjs_anon_sym_LT_LT, mozjs_anon_sym_AMP, mozjs_anon_sym_CARET,
      mozjs_anon_sym_PIPE, mozjs_anon_sym_PLUS, mozjs_anon_sym_DASH, mozjs_anon_sym_SLASH,
      mozjs_anon_sym_PERCENT, mozjs_anon_sym_STAR_STAR, mozjs_anon_sym_EQ_EQ,
      mozjs_anon_sym_BANG_EQ, mozjs_anon_sym_QMARK_QMARK]"

definition mozjs_small_run_11704 :: "nat list" where
  "mozjs_small_run_11704 =
    [7, 399, 1, mozjs_anon_sym_EQ, 417, 1, mozjs_anon_sym_EQ_GT, 5, 2, mozjs_sym_html_comment,
      mozjs_sym_comment, 584, 3, mozjs_anon_sym_COMMA, mozjs_anon_sym_RBRACE,
      mozjs_anon_sym_RBRACK, 311, 13, mozjs_sym__ternary_qmark, mozjs_anon_sym_LPAREN,
      mozjs_anon_sym_LBRACK, mozjs_anon_sym_DOT, mozjs_sym_optional_chain, mozjs_anon_sym_LT_EQ,
      mozjs_anon_sym_EQ_EQ_EQ, mozjs_anon_sym_BANG_EQ_EQ, mozjs_anon_sym_GT_EQ,
      mozjs_anon_sym_instanceof, mozjs_anon_sym_PLUS_PLUS, mozjs_anon_sym_DASH_DASH,
      mozjs_anon_sym_BQUOTE, 344, 15, mozjs_anon_sym_PLUS_EQ, mozjs_anon_sym_DASH_EQ,
      mozjs_anon_sym_STAR_EQ, mozjs_anon_sym_SLASH_EQ, mozjs_anon_sym_PERCENT_EQ,
      mozjs_anon_sym_CARET_EQ, mozjs_anon_sym_AMP_EQ, mozjs_anon_sym_PIPE_EQ,
      mozjs_anon_sym_GT_GT_EQ, mozjs_anon_sym_GT_GT_GT_EQ, mozjs_anon_sym_LT_LT_EQ,
      mozjs_anon_sym_STAR_STAR_EQ, mozjs_anon_sym_AMP_AMP_EQ, mozjs_anon_sym_PIPE_PIPE_EQ,
      mozjs_anon_sym_QMARK_QMARK_EQ, 307, 20, mozjs_anon_sym_STAR, mozjs_anon_sym_in,
      mozjs_anon_sym_LT, mozjs_anon_sym_GT, mozjs_anon_sym_AMP_AMP, mozjs_anon_sym_PIPE_PIPE,
      mozjs_anon_sym_GT_GT, mozjs_anon_sym_GT_GT_GT, mozjs_anon_sym_LT_LT, mozjs_anon_sym_AMP,
      mozjs_anon_sym_CARET, mozjs_anon_sym_PIPE, mozjs_anon_sym_PLUS, mozjs_anon_sym_DASH,
      mozjs_anon_sym_SLASH, mozjs_anon_sym_PERCENT, mozjs_anon_sym_STAR_STAR,
      mozjs_anon_sym_EQ_EQ, mozjs_anon_sym_BANG_EQ, mozjs_anon_sym_QMARK_QMARK]"

definition mozjs_small_run_11774 :: "nat list" where
  "mozjs_small_run_11774 =
    [6, 1535, 1, mozjs_anon_sym_EQ, 5, 2, mozjs_sym_html_comment, mozjs_sym_comment, 1533, 4,
      mozjs_anon_sym_COMMA, mozjs_anon_sym_RBRACE, mozjs_anon_sym_RPAREN, mozjs_anon_sym_RBRACK,
      1437, 13, mozjs_sym__ternary_qmark, mozjs_anon_sym_LPAREN, mozjs_anon_sym_LBRACK,
      mozjs_anon_sym_DOT, mozjs_sym_optional_chain, mozjs_anon_sym_LT_EQ,
      mozjs_anon_sym_EQ_EQ_EQ, mozjs_anon_sym_BANG_EQ_EQ, mozjs_anon_sym_GT_EQ,
      mozjs_anon_sym_instanceof, mozjs_anon_sym_PLUS_PLUS, mozjs_anon_sym_DASH_DASH,
      mozjs_anon_sym_BQUOTE, 1446, 15, mozjs_anon_sym_PLUS_EQ, mozjs_anon_sym_DASH_EQ,
      mozjs_anon_sym_STAR_EQ, mozjs_anon_sym_SLASH_EQ, mozjs_anon_sym_PERCENT_EQ,
      mozjs_anon_sym_CARET_EQ, mozjs_anon_sym_AMP_EQ, mozjs_anon_sym_PIPE_EQ,
      mozjs_anon_sym_GT_GT_EQ, mozjs_anon_sym_GT_GT_GT_EQ, mozjs_anon_sym_LT_LT_EQ,
      mozjs_anon_sym_STAR_STAR_EQ, mozjs_anon_sym_AMP_AMP_EQ, mozjs_anon_sym_PIPE_PIPE_EQ,
      mozjs_anon_sym_QMARK_QMARK_EQ, 1435, 20, mozjs_anon_sym_STAR, mozjs_anon_sym_in,
      mozjs_anon_sym_LT, mozjs_anon_sym_GT, mozjs_anon_sym_AMP_AMP, mozjs_anon_sym_PIPE_PIPE,
      mozjs_anon_sym_GT_GT, mozjs_anon_sym_GT_GT_GT, mozjs_anon_sym_LT_LT, mozjs_anon_sym_AMP,
      mozjs_anon_sym_CARET, mozjs_anon_sym_PIPE, mozjs_anon_sym_PLUS, mozjs_anon_sym_DASH,
      mozjs_anon_sym_SLASH, mozjs_anon_sym_PERCENT, mozjs_anon_sym_STAR_STAR,
      mozjs_anon_sym_EQ_EQ, mozjs_anon_sym_BANG_EQ, mozjs_anon_sym_QMARK_QMARK]"

definition mozjs_small_run_11842 :: "nat list" where
  "mozjs_small_run_11842 =
    [6, 1549, 1, mozjs_anon_sym_EQ, 5, 2, mozjs_sym_html_comment, mozjs_sym_comment, 1546, 4,
      mozjs_anon_sym_COMMA, mozjs_anon_sym_RBRACE, mozjs_anon_sym_RPAREN, mozjs_anon_sym_RBRACK,
      1437, 13, mozjs_sym__ternary_qmark, mozjs_anon_sym_LPAREN, mozjs_anon_sym_LBRACK,
      mozjs_anon_sym_DOT, mozjs_sym_optional_chain, mozjs_anon_sym_LT_EQ,
      mozjs_anon_sym_EQ_EQ_EQ, mozjs_anon_sym_BANG_EQ_EQ, mozjs_anon_sym_GT_EQ,
      mozjs_anon_sym_instanceof, mozjs_anon_sym_PLUS_PLUS, mozjs_anon_sym_DASH_DASH,
      mozjs_anon_sym_BQUOTE, 1446, 15, mozjs_anon_sym_PLUS_EQ, mozjs_anon_sym_DASH_EQ,
      mozjs_anon_sym_STAR_EQ, mozjs_anon_sym_SLASH_EQ, mozjs_anon_sym_PERCENT_EQ,
      mozjs_anon_sym_CARET_EQ, mozjs_anon_sym_AMP_EQ, mozjs_anon_sym_PIPE_EQ,
      mozjs_anon_sym_GT_GT_EQ, mozjs_anon_sym_GT_GT_GT_EQ, mozjs_anon_sym_LT_LT_EQ,
      mozjs_anon_sym_STAR_STAR_EQ, mozjs_anon_sym_AMP_AMP_EQ, mozjs_anon_sym_PIPE_PIPE_EQ,
      mozjs_anon_sym_QMARK_QMARK_EQ, 1435, 20, mozjs_anon_sym_STAR, mozjs_anon_sym_in,
      mozjs_anon_sym_LT, mozjs_anon_sym_GT, mozjs_anon_sym_AMP_AMP, mozjs_anon_sym_PIPE_PIPE,
      mozjs_anon_sym_GT_GT, mozjs_anon_sym_GT_GT_GT, mozjs_anon_sym_LT_LT, mozjs_anon_sym_AMP,
      mozjs_anon_sym_CARET, mozjs_anon_sym_PIPE, mozjs_anon_sym_PLUS, mozjs_anon_sym_DASH,
      mozjs_anon_sym_SLASH, mozjs_anon_sym_PERCENT, mozjs_anon_sym_STAR_STAR,
      mozjs_anon_sym_EQ_EQ, mozjs_anon_sym_BANG_EQ, mozjs_anon_sym_QMARK_QMARK]"

definition mozjs_small_run_11910 :: "nat list" where
  "mozjs_small_run_11910 =
    [5, 1540, 1, mozjs_anon_sym_EQ, 5, 2, mozjs_sym_html_comment, mozjs_sym_comment, 1446, 15,
      mozjs_anon_sym_PLUS_EQ, mozjs_anon_sym_DASH_EQ, mozjs_anon_sym_STAR_EQ,
      mozjs_anon_sym_SLASH_EQ, mozjs_anon_sym_PERCENT_EQ, mozjs_anon_sym_CARET_EQ,
      mozjs_anon_sym_AMP_EQ, mozjs_anon_sym_PIPE_EQ, mozjs_anon_sym_GT_GT_EQ,
      mozjs_anon_sym_GT_GT_GT_EQ, mozjs_anon_sym_LT_LT_EQ, mozjs_anon_sym_STAR_STAR_EQ,
      mozjs_anon_sym_AMP_AMP_EQ, mozjs_anon_sym_PIPE_PIPE_EQ, mozjs_anon_sym_QMARK_QMARK_EQ,
      1437, 17, mozjs_sym__automatic_semicolon, mozjs_sym__ternary_qmark, mozjs_anon_sym_COMMA,
      mozjs_anon_sym_RBRACE, mozjs_anon_sym_LPAREN, mozjs_anon_sym_SEMI, mozjs_anon_sym_LBRACK,
      mozjs_anon_sym_DOT, mozjs_sym_optional_chain, mozjs_anon_sym_LT_EQ,
      mozjs_anon_sym_EQ_EQ_EQ, mozjs_anon_sym_BANG_EQ_EQ, mozjs_anon_sym_GT_EQ,
      mozjs_anon_sym_instanceof, mozjs_anon_sym_PLUS_PLUS, mozjs_anon_sym_DASH_DASH,
      mozjs_anon_sym_BQUOTE, 1435, 20, mozjs_anon_sym_STAR, mozjs_anon_sym_in, mozjs_anon_sym_LT,
      mozjs_anon_sym_GT, mozjs_anon_sym_AMP_AMP, mozjs_anon_sym_PIPE_PIPE, mozjs_anon_sym_GT_GT,
      mozjs_anon_sym_GT_GT_GT, mozjs_anon_sym_LT_LT, mozjs_anon_sym_AMP, mozjs_anon_sym_CARET,
      mozjs_anon_sym_PIPE, mozjs_anon_sym_PLUS, mozjs_anon_sym_DASH, mozjs_anon_sym_SLASH,
      mozjs_anon_sym_PERCENT, mozjs_anon_sym_STAR_STAR, mozjs_anon_sym_EQ_EQ,
      mozjs_anon_sym_BANG_EQ, mozjs_anon_sym_QMARK_QMARK]"

definition mozjs_small_run_11976 :: "nat list" where
  "mozjs_small_run_11976 =
    [8, 399, 1, mozjs_anon_sym_EQ, 417, 1, mozjs_anon_sym_EQ_GT, 548, 1, mozjs_anon_sym_in, 1559,
      1, mozjs_anon_sym_of, 5, 2, mozjs_sym_html_comment, mozjs_sym_comment, 311, 15,
      mozjs_sym__ternary_qmark, mozjs_anon_sym_COMMA, mozjs_anon_sym_LPAREN, mozjs_anon_sym_SEMI,
      mozjs_anon_sym_LBRACK, mozjs_anon_sym_DOT, mozjs_sym_optional_chain, mozjs_anon_sym_LT_EQ,
      mozjs_anon_sym_EQ_EQ_EQ, mozjs_anon_sym_BANG_EQ_EQ, mozjs_anon_sym_GT_EQ,
      mozjs_anon_sym_instanceof, mozjs_anon_sym_PLUS_PLUS, mozjs_anon_sym_DASH_DASH,
      mozjs_anon_sym_BQUOTE, 344, 15, mozjs_anon_sym_PLUS_EQ, mozjs_anon_sym_DASH_EQ,
      mozjs_anon_sym_STAR_EQ, mozjs_anon_sym_SLASH_EQ, mozjs_anon_sym_PERCENT_EQ,
      mozjs_anon_sym_CARET_EQ, mozjs_anon_sym_AMP_EQ, mozjs_anon_sym_PIPE_EQ,
      mozjs_anon_sym_GT_GT_EQ, mozjs_anon_sym_GT_GT_GT_EQ, mozjs_anon_sym_LT_LT_EQ,
      mozjs_anon_sym_STAR_STAR_EQ, mozjs_anon_sym_AMP_AMP_EQ, mozjs_anon_sym_PIPE_PIPE_EQ,
      mozjs_anon_sym_QMARK_QMARK_EQ, 307, 19, mozjs_anon_sym_STAR, mozjs_anon_sym_LT,
      mozjs_anon_sym_GT, mozjs_anon_sym_AMP_AMP, mozjs_anon_sym_PIPE_PIPE, mozjs_anon_sym_GT_GT,
      mozjs_anon_sym_GT_GT_GT, mozjs_anon_sym_LT_LT, mozjs_anon_sym_AMP, mozjs_anon_sym_CARET,
      mozjs_anon_sym_PIPE, mozjs_anon_sym_PLUS, mozjs_anon_sym_DASH, mozjs_anon_sym_SLASH,
      mozjs_anon_sym_PERCENT, mozjs_anon_sym_STAR_STAR, mozjs_anon_sym_EQ_EQ,
      mozjs_anon_sym_BANG_EQ, mozjs_anon_sym_QMARK_QMARK]"

definition mozjs_small_run_12048 :: "nat list" where
  "mozjs_small_run_12048 =
    [6, 1472, 1, mozjs_anon_sym_EQ, 5, 2, mozjs_sym_html_comment, mozjs_sym_comment, 1544, 4,
      mozjs_anon_sym_COMMA, mozjs_anon_sym_RBRACE, mozjs_anon_sym_RPAREN, mozjs_anon_sym_RBRACK,
      1437, 13, mozjs_sym__ternary_qmark, mozjs_anon_sym_LPAREN, mozjs_anon_sym_LBRACK,
      mozjs_anon_sym_DOT, mozjs_sym_optional_chain, mozjs_anon_sym_LT_EQ,
      mozjs_anon_sym_EQ_EQ_EQ, mozjs_anon_sym_BANG_EQ_EQ, mozjs_anon_sym_GT_EQ,
      mozjs_anon_sym_instanceof, mozjs_anon_sym_PLUS_PLUS, mozjs_anon_sym_DASH_DASH,
      mozjs_anon_sym_BQUOTE, 1446, 15, mozjs_anon_sym_PLUS_EQ, mozjs_anon_sym_DASH_EQ,
      mozjs_anon_sym_STAR_EQ, mozjs_anon_sym_SLASH_EQ, mozjs_anon_sym_PERCENT_EQ,
      mozjs_anon_sym_CARET_EQ, mozjs_anon_sym_AMP_EQ, mozjs_anon_sym_PIPE_EQ,
      mozjs_anon_sym_GT_GT_EQ, mozjs_anon_sym_GT_GT_GT_EQ, mozjs_anon_sym_LT_LT_EQ,
      mozjs_anon_sym_STAR_STAR_EQ, mozjs_anon_sym_AMP_AMP_EQ, mozjs_anon_sym_PIPE_PIPE_EQ,
      mozjs_anon_sym_QMARK_QMARK_EQ, 1435, 20, mozjs_anon_sym_STAR, mozjs_anon_sym_in,
      mozjs_anon_sym_LT, mozjs_anon_sym_GT, mozjs_anon_sym_AMP_AMP, mozjs_anon_sym_PIPE_PIPE,
      mozjs_anon_sym_GT_GT, mozjs_anon_sym_GT_GT_GT, mozjs_anon_sym_LT_LT, mozjs_anon_sym_AMP,
      mozjs_anon_sym_CARET, mozjs_anon_sym_PIPE, mozjs_anon_sym_PLUS, mozjs_anon_sym_DASH,
      mozjs_anon_sym_SLASH, mozjs_anon_sym_PERCENT, mozjs_anon_sym_STAR_STAR,
      mozjs_anon_sym_EQ_EQ, mozjs_anon_sym_BANG_EQ, mozjs_anon_sym_QMARK_QMARK]"

definition mozjs_small_run_12116 :: "nat list" where
  "mozjs_small_run_12116 =
    [5, 1552, 1, mozjs_anon_sym_EQ, 5, 2, mozjs_sym_html_comment, mozjs_sym_comment, 1446, 15,
      mozjs_anon_sym_PLUS_EQ, mozjs_anon_sym_DASH_EQ, mozjs_anon_sym_STAR_EQ,
      mozjs_anon_sym_SLASH_EQ, mozjs_anon_sym_PERCENT_EQ, mozjs_anon_sym_CARET_EQ,
      mozjs_anon_sym_AMP_EQ, mozjs_anon_sym_PIPE_EQ, mozjs_anon_sym_GT_GT_EQ,
      mozjs_anon_sym_GT_GT_GT_EQ, mozjs_anon_sym_LT_LT_EQ, mozjs_anon_sym_STAR_STAR_EQ,
      mozjs_anon_sym_AMP_AMP_EQ, mozjs_anon_sym_PIPE_PIPE_EQ, mozjs_anon_sym_QMARK_QMARK_EQ,
      1437, 17, mozjs_sym__automatic_semicolon, mozjs_sym__ternary_qmark, mozjs_anon_sym_COMMA,
      mozjs_anon_sym_of, mozjs_anon_sym_LPAREN, mozjs_anon_sym_SEMI, mozjs_anon_sym_LBRACK,
      mozjs_anon_sym_DOT, mozjs_sym_optional_chain, mozjs_anon_sym_LT_EQ,
      mozjs_anon_sym_EQ_EQ_EQ, mozjs_anon_sym_BANG_EQ_EQ, mozjs_anon_sym_GT_EQ,
      mozjs_anon_sym_instanceof, mozjs_anon_sym_PLUS_PLUS, mozjs_anon_sym_DASH_DASH,
      mozjs_anon_sym_BQUOTE, 1435, 20, mozjs_anon_sym_STAR, mozjs_anon_sym_in, mozjs_anon_sym_LT,
      mozjs_anon_sym_GT, mozjs_anon_sym_AMP_AMP, mozjs_anon_sym_PIPE_PIPE, mozjs_anon_sym_GT_GT,
      mozjs_anon_sym_GT_GT_GT, mozjs_anon_sym_LT_LT, mozjs_anon_sym_AMP, mozjs_anon_sym_CARET,
      mozjs_anon_sym_PIPE, mozjs_anon_sym_PLUS, mozjs_anon_sym_DASH, mozjs_anon_sym_SLASH,
      mozjs_anon_sym_PERCENT, mozjs_anon_sym_STAR_STAR, mozjs_anon_sym_EQ_EQ,
      mozjs_anon_sym_BANG_EQ, mozjs_anon_sym_QMARK_QMARK]"

definition mozjs_small_run_12182 :: "nat list" where
  "mozjs_small_run_12182 =
    [7, 1485, 1, mozjs_anon_sym_EQ, 1487, 1, mozjs_anon_sym_EQ_GT, 5, 2, mozjs_sym_html_comment,
      mozjs_sym_comment, 1561, 3, mozjs_anon_sym_COMMA, mozjs_anon_sym_RBRACE,
      mozjs_anon_sym_RBRACK, 1437, 13, mozjs_sym__ternary_qmark, mozjs_anon_sym_LPAREN,
      mozjs_anon_sym_LBRACK, mozjs_anon_sym_DOT, mozjs_sym_optional_chain, mozjs_anon_sym_LT_EQ,
      mozjs_anon_sym_EQ_EQ_EQ, mozjs_anon_sym_BANG_EQ_EQ, mozjs_anon_sym_GT_EQ,
      mozjs_anon_sym_instanceof, mozjs_anon_sym_PLUS_PLUS, mozjs_anon_sym_DASH_DASH,
      mozjs_anon_sym_BQUOTE, 1446, 15, mozjs_anon_sym_PLUS_EQ, mozjs_anon_sym_DASH_EQ,
      mozjs_anon_sym_STAR_EQ, mozjs_anon_sym_SLASH_EQ, mozjs_anon_sym_PERCENT_EQ,
      mozjs_anon_sym_CARET_EQ, mozjs_anon_sym_AMP_EQ, mozjs_anon_sym_PIPE_EQ,
      mozjs_anon_sym_GT_GT_EQ, mozjs_anon_sym_GT_GT_GT_EQ, mozjs_anon_sym_LT_LT_EQ,
      mozjs_anon_sym_STAR_STAR_EQ, mozjs_anon_sym_AMP_AMP_EQ, mozjs_anon_sym_PIPE_PIPE_EQ,
      mozjs_anon_sym_QMARK_QMARK_EQ, 1435, 20, mozjs_anon_sym_STAR, mozjs_anon_sym_in,
      mozjs_anon_sym_LT, mozjs_anon_sym_GT, mozjs_anon_sym_AMP_AMP, mozjs_anon_sym_PIPE_PIPE,
      mozjs_anon_sym_GT_GT, mozjs_anon_sym_GT_GT_GT, mozjs_anon_sym_LT_LT, mozjs_anon_sym_AMP,
      mozjs_anon_sym_CARET, mozjs_anon_sym_PIPE, mozjs_anon_sym_PLUS, mozjs_anon_sym_DASH,
      mozjs_anon_sym_SLASH, mozjs_anon_sym_PERCENT, mozjs_anon_sym_STAR_STAR,
      mozjs_anon_sym_EQ_EQ, mozjs_anon_sym_BANG_EQ, mozjs_anon_sym_QMARK_QMARK]"

definition mozjs_small_run_12252 :: "nat list" where
  "mozjs_small_run_12252 =
    [8, 417, 1, mozjs_anon_sym_EQ_GT, 529, 1, mozjs_anon_sym_COMMA, 538, 1,
      mozjs_anon_sym_RBRACK, 541, 1, mozjs_anon_sym_EQ, 5, 2, mozjs_sym_html_comment,
      mozjs_sym_comment, 311, 13, mozjs_sym__ternary_qmark, mozjs_anon_sym_LPAREN,
      mozjs_anon_sym_LBRACK, mozjs_anon_sym_DOT, mozjs_sym_optional_chain, mozjs_anon_sym_LT_EQ,
      mozjs_anon_sym_EQ_EQ_EQ, mozjs_anon_sym_BANG_EQ_EQ, mozjs_anon_sym_GT_EQ,
      mozjs_anon_sym_instanceof, mozjs_anon_sym_PLUS_PLUS, mozjs_anon_sym_DASH_DASH,
      mozjs_anon_sym_BQUOTE, 344, 15, mozjs_anon_sym_PLUS_EQ, mozjs_anon_sym_DASH_EQ,
      mozjs_anon_sym_STAR_EQ, mozjs_anon_sym_SLASH_EQ, mozjs_anon_sym_PERCENT_EQ,
      mozjs_anon_sym_CARET_EQ, mozjs_anon_sym_AMP_EQ, mozjs_anon_sym_PIPE_EQ,
      mozjs_anon_sym_GT_GT_EQ, mozjs_anon_sym_GT_GT_GT_EQ, mozjs_anon_sym_LT_LT_EQ,
      mozjs_anon_sym_STAR_STAR_EQ, mozjs_anon_sym_AMP_AMP_EQ, mozjs_anon_sym_PIPE_PIPE_EQ,
      mozjs_anon_sym_QMARK_QMARK_EQ, 307, 20, mozjs_anon_sym_STAR, mozjs_anon_sym_in,
      mozjs_anon_sym_LT, mozjs_anon_sym_GT, mozjs_anon_sym_AMP_AMP, mozjs_anon_sym_PIPE_PIPE,
      mozjs_anon_sym_GT_GT, mozjs_anon_sym_GT_GT_GT, mozjs_anon_sym_LT_LT, mozjs_anon_sym_AMP,
      mozjs_anon_sym_CARET, mozjs_anon_sym_PIPE, mozjs_anon_sym_PLUS, mozjs_anon_sym_DASH,
      mozjs_anon_sym_SLASH, mozjs_anon_sym_PERCENT, mozjs_anon_sym_STAR_STAR,
      mozjs_anon_sym_EQ_EQ, mozjs_anon_sym_BANG_EQ, mozjs_anon_sym_QMARK_QMARK]"

definition mozjs_small_run_12323 :: "nat list" where
  "mozjs_small_run_12323 =
    [7, 1485, 1, mozjs_anon_sym_EQ, 1554, 1, mozjs_anon_sym_of, 1556, 1, mozjs_anon_sym_in, 5, 2,
      mozjs_sym_html_comment, mozjs_sym_comment, 1437, 15, mozjs_sym__ternary_qmark,
      mozjs_anon_sym_COMMA, mozjs_anon_sym_LPAREN, mozjs_anon_sym_SEMI, mozjs_anon_sym_LBRACK,
      mozjs_anon_sym_DOT, mozjs_sym_optional_chain, mozjs_anon_sym_LT_EQ,
      mozjs_anon_sym_EQ_EQ_EQ, mozjs_anon_sym_BANG_EQ_EQ, mozjs_anon_sym_GT_EQ,
      mozjs_anon_sym_instanceof, mozjs_anon_sym_PLUS_PLUS, mozjs_anon_sym_DASH_DASH,
      mozjs_anon_sym_BQUOTE, 1446, 15, mozjs_anon_sym_PLUS_EQ, mozjs_anon_sym_DASH_EQ,
      mozjs_anon_sym_STAR_EQ, mozjs_anon_sym_SLASH_EQ, mozjs_anon_sym_PERCENT_EQ,
      mozjs_anon_sym_CARET_EQ, mozjs_anon_sym_AMP_EQ, mozjs_anon_sym_PIPE_EQ,
      mozjs_anon_sym_GT_GT_EQ, mozjs_anon_sym_GT_GT_GT_EQ, mozjs_anon_sym_LT_LT_EQ,
      mozjs_anon_sym_STAR_STAR_EQ, mozjs_anon_sym_AMP_AMP_EQ, mozjs_anon_sym_PIPE_PIPE_EQ,
      mozjs_anon_sym_QMARK_QMARK_EQ, 1435, 19, mozjs_anon_sym_STAR, mozjs_anon_sym_LT,
      mozjs_anon_sym_GT, mozjs_anon_sym_AMP_AMP, mozjs_anon_sym_PIPE_PIPE, mozjs_anon_sym_GT_GT,
      mozjs_anon_sym_GT_GT_GT, mozjs_anon_sym_LT_LT, mozjs_anon_sym_AMP, mozjs_anon_sym_CARET,
      mozjs_anon_sym_PIPE, mozjs_anon_sym_PLUS, mozjs_anon_sym_DASH, mozjs_anon_sym_SLASH,
      mozjs_anon_sym_PERCENT, mozjs_anon_sym_STAR_STAR, mozjs_anon_sym_EQ_EQ,
      mozjs_anon_sym_BANG_EQ, mozjs_anon_sym_QMARK_QMARK]"

definition mozjs_small_run_12392 :: "nat list" where
  "mozjs_small_run_12392 =
    [6, 1485, 1, mozjs_anon_sym_EQ, 5, 2, mozjs_sym_html_comment, mozjs_sym_comment, 1561, 3,
      mozjs_anon_sym_COMMA, mozjs_anon_sym_RBRACE, mozjs_anon_sym_RBRACK, 1437, 13,
      mozjs_sym__ternary_qmark, mozjs_anon_sym_LPAREN, mozjs_anon_sym_LBRACK, mozjs_anon_sym_DOT,
      mozjs_sym_optional_chain, mozjs_anon_sym_LT_EQ, mozjs_anon_sym_EQ_EQ_EQ,
      mozjs_anon_sym_BANG_EQ_EQ, mozjs_anon_sym_GT_EQ, mozjs_anon_sym_instanceof,
      mozjs_anon_sym_PLUS_PLUS, mozjs_anon_sym_DASH_DASH, mozjs_anon_sym_BQUOTE, 1446, 15,
      mozjs_anon_sym_PLUS_EQ, mozjs_anon_sym_DASH_EQ, mozjs_anon_sym_STAR_EQ,
      mozjs_anon_sym_SLASH_EQ, mozjs_anon_sym_PERCENT_EQ, mozjs_anon_sym_CARET_EQ,
      mozjs_anon_sym_AMP_EQ, mozjs_anon_sym_PIPE_EQ, mozjs_anon_sym_GT_GT_EQ,
      mozjs_anon_sym_GT_GT_GT_EQ, mozjs_anon_sym_LT_LT_EQ, mozjs_anon_sym_STAR_STAR_EQ,
      mozjs_anon_sym_AMP_AMP_EQ, mozjs_anon_sym_PIPE_PIPE_EQ, mozjs_anon_sym_QMARK_QMARK_EQ,
      1435, 20, mozjs_anon_sym_STAR, mozjs_anon_sym_in, mozjs_anon_sym_LT, mozjs_anon_sym_GT,
      mozjs_anon_sym_AMP_AMP, mozjs_anon_sym_PIPE_PIPE, mozjs_anon_sym_GT_GT,
      mozjs_anon_sym_GT_GT_GT, mozjs_anon_sym_LT_LT, mozjs_anon_sym_AMP, mozjs_anon_sym_CARET,
      mozjs_anon_sym_PIPE, mozjs_anon_sym_PLUS, mozjs_anon_sym_DASH, mozjs_anon_sym_SLASH,
      mozjs_anon_sym_PERCENT, mozjs_anon_sym_STAR_STAR, mozjs_anon_sym_EQ_EQ,
      mozjs_anon_sym_BANG_EQ, mozjs_anon_sym_QMARK_QMARK]"

definition mozjs_small_run_12459 :: "nat list" where
  "mozjs_small_run_12459 =
    [8, 1487, 1, mozjs_anon_sym_EQ_GT, 1533, 1, mozjs_anon_sym_COMMA, 1546, 1,
      mozjs_anon_sym_RBRACK, 1549, 1, mozjs_anon_sym_EQ, 5, 2, mozjs_sym_html_comment,
      mozjs_sym_comment, 1437, 13, mozjs_sym__ternary_qmark, mozjs_anon_sym_LPAREN,
      mozjs_anon_sym_LBRACK, mozjs_anon_sym_DOT, mozjs_sym_optional_chain, mozjs_anon_sym_LT_EQ,
      mozjs_anon_sym_EQ_EQ_EQ, mozjs_anon_sym_BANG_EQ_EQ, mozjs_anon_sym_GT_EQ,
      mozjs_anon_sym_instanceof, mozjs_anon_sym_PLUS_PLUS, mozjs_anon_sym_DASH_DASH,
      mozjs_anon_sym_BQUOTE, 1446, 15, mozjs_anon_sym_PLUS_EQ, mozjs_anon_sym_DASH_EQ,
      mozjs_anon_sym_STAR_EQ, mozjs_anon_sym_SLASH_EQ, mozjs_anon_sym_PERCENT_EQ,
      mozjs_anon_sym_CARET_EQ, mozjs_anon_sym_AMP_EQ, mozjs_anon_sym_PIPE_EQ,
      mozjs_anon_sym_GT_GT_EQ, mozjs_anon_sym_GT_GT_GT_EQ, mozjs_anon_sym_LT_LT_EQ,
      mozjs_anon_sym_STAR_STAR_EQ, mozjs_anon_sym_AMP_AMP_EQ, mozjs_anon_sym_PIPE_PIPE_EQ,
      mozjs_anon_sym_QMARK_QMARK_EQ, 1435, 20, mozjs_anon_sym_STAR, mozjs_anon_sym_in,
      mozjs_anon_sym_LT, mozjs_anon_sym_GT, mozjs_anon_sym_AMP_AMP, mozjs_anon_sym_PIPE_PIPE,
      mozjs_anon_sym_GT_GT, mozjs_anon_sym_GT_GT_GT, mozjs_anon_sym_LT_LT, mozjs_anon_sym_AMP,
      mozjs_anon_sym_CARET, mozjs_anon_sym_PIPE, mozjs_anon_sym_PLUS, mozjs_anon_sym_DASH,
      mozjs_anon_sym_SLASH, mozjs_anon_sym_PERCENT, mozjs_anon_sym_STAR_STAR,
      mozjs_anon_sym_EQ_EQ, mozjs_anon_sym_BANG_EQ, mozjs_anon_sym_QMARK_QMARK]"

definition mozjs_small_run_12530 :: "nat list" where
  "mozjs_small_run_12530 =
    [6, 1472, 1, mozjs_anon_sym_EQ, 1564, 1, mozjs_anon_sym_EQ_GT, 5, 2, mozjs_sym_html_comment,
      mozjs_sym_comment, 1437, 14, mozjs_sym__ternary_qmark, mozjs_anon_sym_LBRACE,
      mozjs_anon_sym_LPAREN, mozjs_anon_sym_LBRACK, mozjs_anon_sym_DOT, mozjs_sym_optional_chain,
      mozjs_anon_sym_LT_EQ, mozjs_anon_sym_EQ_EQ_EQ, mozjs_anon_sym_BANG_EQ_EQ,
      mozjs_anon_sym_GT_EQ, mozjs_anon_sym_instanceof, mozjs_anon_sym_PLUS_PLUS,
      mozjs_anon_sym_DASH_DASH, mozjs_anon_sym_BQUOTE, 1446, 15, mozjs_anon_sym_PLUS_EQ,
      mozjs_anon_sym_DASH_EQ, mozjs_anon_sym_STAR_EQ, mozjs_anon_sym_SLASH_EQ,
      mozjs_anon_sym_PERCENT_EQ, mozjs_anon_sym_CARET_EQ, mozjs_anon_sym_AMP_EQ,
      mozjs_anon_sym_PIPE_EQ, mozjs_anon_sym_GT_GT_EQ, mozjs_anon_sym_GT_GT_GT_EQ,
      mozjs_anon_sym_LT_LT_EQ, mozjs_anon_sym_STAR_STAR_EQ, mozjs_anon_sym_AMP_AMP_EQ,
      mozjs_anon_sym_PIPE_PIPE_EQ, mozjs_anon_sym_QMARK_QMARK_EQ, 1435, 20, mozjs_anon_sym_STAR,
      mozjs_anon_sym_in, mozjs_anon_sym_LT, mozjs_anon_sym_GT, mozjs_anon_sym_AMP_AMP,
      mozjs_anon_sym_PIPE_PIPE, mozjs_anon_sym_GT_GT, mozjs_anon_sym_GT_GT_GT,
      mozjs_anon_sym_LT_LT, mozjs_anon_sym_AMP, mozjs_anon_sym_CARET, mozjs_anon_sym_PIPE,
      mozjs_anon_sym_PLUS, mozjs_anon_sym_DASH, mozjs_anon_sym_SLASH, mozjs_anon_sym_PERCENT,
      mozjs_anon_sym_STAR_STAR, mozjs_anon_sym_EQ_EQ, mozjs_anon_sym_BANG_EQ,
      mozjs_anon_sym_QMARK_QMARK]"

definition mozjs_small_run_12596 :: "nat list" where
  "mozjs_small_run_12596 =
    [6, 471, 1, mozjs_anon_sym_EQ, 635, 1, mozjs_anon_sym_EQ_GT, 5, 2, mozjs_sym_html_comment,
      mozjs_sym_comment, 311, 14, mozjs_sym__ternary_qmark, mozjs_anon_sym_LBRACE,
      mozjs_anon_sym_LPAREN, mozjs_anon_sym_LBRACK, mozjs_anon_sym_DOT, mozjs_sym_optional_chain,
      mozjs_anon_sym_LT_EQ, mozjs_anon_sym_EQ_EQ_EQ, mozjs_anon_sym_BANG_EQ_EQ,
      mozjs_anon_sym_GT_EQ, mozjs_anon_sym_instanceof, mozjs_anon_sym_PLUS_PLUS,
      mozjs_anon_sym_DASH_DASH, mozjs_anon_sym_BQUOTE, 344, 15, mozjs_anon_sym_PLUS_EQ,
      mozjs_anon_sym_DASH_EQ, mozjs_anon_sym_STAR_EQ, mozjs_anon_sym_SLASH_EQ,
      mozjs_anon_sym_PERCENT_EQ, mozjs_anon_sym_CARET_EQ, mozjs_anon_sym_AMP_EQ,
      mozjs_anon_sym_PIPE_EQ, mozjs_anon_sym_GT_GT_EQ, mozjs_anon_sym_GT_GT_GT_EQ,
      mozjs_anon_sym_LT_LT_EQ, mozjs_anon_sym_STAR_STAR_EQ, mozjs_anon_sym_AMP_AMP_EQ,
      mozjs_anon_sym_PIPE_PIPE_EQ, mozjs_anon_sym_QMARK_QMARK_EQ, 307, 20, mozjs_anon_sym_STAR,
      mozjs_anon_sym_in, mozjs_anon_sym_LT, mozjs_anon_sym_GT, mozjs_anon_sym_AMP_AMP,
      mozjs_anon_sym_PIPE_PIPE, mozjs_anon_sym_GT_GT, mozjs_anon_sym_GT_GT_GT,
      mozjs_anon_sym_LT_LT, mozjs_anon_sym_AMP, mozjs_anon_sym_CARET, mozjs_anon_sym_PIPE,
      mozjs_anon_sym_PLUS, mozjs_anon_sym_DASH, mozjs_anon_sym_SLASH, mozjs_anon_sym_PERCENT,
      mozjs_anon_sym_STAR_STAR, mozjs_anon_sym_EQ_EQ, mozjs_anon_sym_BANG_EQ,
      mozjs_anon_sym_QMARK_QMARK]"

definition mozjs_small_run_12662 :: "nat list" where
  "mozjs_small_run_12662 =
    [6, 1564, 1, mozjs_anon_sym_EQ_GT, 1566, 1, mozjs_anon_sym_EQ, 5, 2, mozjs_sym_html_comment,
      mozjs_sym_comment, 1437, 14, mozjs_sym__ternary_qmark, mozjs_anon_sym_LBRACE,
      mozjs_anon_sym_LPAREN, mozjs_anon_sym_LBRACK, mozjs_anon_sym_DOT, mozjs_sym_optional_chain,
      mozjs_anon_sym_LT_EQ, mozjs_anon_sym_EQ_EQ_EQ, mozjs_anon_sym_BANG_EQ_EQ,
      mozjs_anon_sym_GT_EQ, mozjs_anon_sym_instanceof, mozjs_anon_sym_PLUS_PLUS,
      mozjs_anon_sym_DASH_DASH, mozjs_anon_sym_BQUOTE, 1446, 15, mozjs_anon_sym_PLUS_EQ,
      mozjs_anon_sym_DASH_EQ, mozjs_anon_sym_STAR_EQ, mozjs_anon_sym_SLASH_EQ,
      mozjs_anon_sym_PERCENT_EQ, mozjs_anon_sym_CARET_EQ, mozjs_anon_sym_AMP_EQ,
      mozjs_anon_sym_PIPE_EQ, mozjs_anon_sym_GT_GT_EQ, mozjs_anon_sym_GT_GT_GT_EQ,
      mozjs_anon_sym_LT_LT_EQ, mozjs_anon_sym_STAR_STAR_EQ, mozjs_anon_sym_AMP_AMP_EQ,
      mozjs_anon_sym_PIPE_PIPE_EQ, mozjs_anon_sym_QMARK_QMARK_EQ, 1435, 20, mozjs_anon_sym_STAR,
      mozjs_anon_sym_in, mozjs_anon_sym_LT, mozjs_anon_sym_GT, mozjs_anon_sym_AMP_AMP,
      mozjs_anon_sym_PIPE_PIPE, mozjs_anon_sym_GT_GT, mozjs_anon_sym_GT_GT_GT,
      mozjs_anon_sym_LT_LT, mozjs_anon_sym_AMP, mozjs_anon_sym_CARET, mozjs_anon_sym_PIPE,
      mozjs_anon_sym_PLUS, mozjs_anon_sym_DASH, mozjs_anon_sym_SLASH, mozjs_anon_sym_PERCENT,
      mozjs_anon_sym_STAR_STAR, mozjs_anon_sym_EQ_EQ, mozjs_anon_sym_BANG_EQ,
      mozjs_anon_sym_QMARK_QMARK]"

definition mozjs_small_run_12728 :: "nat list" where
  "mozjs_small_run_12728 =
    [6, 471, 1, mozjs_anon_sym_EQ, 534, 1, mozjs_anon_sym_EQ_GT, 5, 2, mozjs_sym_html_comment,
      mozjs_sym_comment, 311, 14, mozjs_sym__ternary_qmark, mozjs_anon_sym_LPAREN,
      mozjs_anon_sym_COLON, mozjs_anon_sym_LBRACK, mozjs_anon_sym_DOT, mozjs_sym_optional_chain,
      mozjs_anon_sym_LT_EQ, mozjs_anon_sym_EQ_EQ_EQ, mozjs_anon_sym_BANG_EQ_EQ,
      mozjs_anon_sym_GT_EQ, mozjs_anon_sym_instanceof, mozjs_anon_sym_PLUS_PLUS,
      mozjs_anon_sym_DASH_DASH, mozjs_anon_sym_BQUOTE, 344, 15, mozjs_anon_sym_PLUS_EQ,
      mozjs_anon_sym_DASH_EQ, mozjs_anon_sym_STAR_EQ, mozjs_anon_sym_SLASH_EQ,
      mozjs_anon_sym_PERCENT_EQ, mozjs_anon_sym_CARET_EQ, mozjs_anon_sym_AMP_EQ,
      mozjs_anon_sym_PIPE_EQ, mozjs_anon_sym_GT_GT_EQ, mozjs_anon_sym_GT_GT_GT_EQ,
      mozjs_anon_sym_LT_LT_EQ, mozjs_anon_sym_STAR_STAR_EQ, mozjs_anon_sym_AMP_AMP_EQ,
      mozjs_anon_sym_PIPE_PIPE_EQ, mozjs_anon_sym_QMARK_QMARK_EQ, 307, 20, mozjs_anon_sym_STAR,
      mozjs_anon_sym_in, mozjs_anon_sym_LT, mozjs_anon_sym_GT, mozjs_anon_sym_AMP_AMP,
      mozjs_anon_sym_PIPE_PIPE, mozjs_anon_sym_GT_GT, mozjs_anon_sym_GT_GT_GT,
      mozjs_anon_sym_LT_LT, mozjs_anon_sym_AMP, mozjs_anon_sym_CARET, mozjs_anon_sym_PIPE,
      mozjs_anon_sym_PLUS, mozjs_anon_sym_DASH, mozjs_anon_sym_SLASH, mozjs_anon_sym_PERCENT,
      mozjs_anon_sym_STAR_STAR, mozjs_anon_sym_EQ_EQ, mozjs_anon_sym_BANG_EQ,
      mozjs_anon_sym_QMARK_QMARK]"

definition mozjs_small_run_12794 :: "nat list" where
  "mozjs_small_run_12794 =
    [7, 1533, 1, mozjs_anon_sym_COMMA, 1546, 1, mozjs_anon_sym_RBRACK, 1549, 1,
      mozjs_anon_sym_EQ, 5, 2, mozjs_sym_html_comment, mozjs_sym_comment, 1437, 13,
      mozjs_sym__ternary_qmark, mozjs_anon_sym_LPAREN, mozjs_anon_sym_LBRACK, mozjs_anon_sym_DOT,
      mozjs_sym_optional_chain, mozjs_anon_sym_LT_EQ, mozjs_anon_sym_EQ_EQ_EQ,
      mozjs_anon_sym_BANG_EQ_EQ, mozjs_anon_sym_GT_EQ, mozjs_anon_sym_instanceof,
      mozjs_anon_sym_PLUS_PLUS, mozjs_anon_sym_DASH_DASH, mozjs_anon_sym_BQUOTE, 1446, 15,
      mozjs_anon_sym_PLUS_EQ, mozjs_anon_sym_DASH_EQ, mozjs_anon_sym_STAR_EQ,
      mozjs_anon_sym_SLASH_EQ, mozjs_anon_sym_PERCENT_EQ, mozjs_anon_sym_CARET_EQ,
      mozjs_anon_sym_AMP_EQ, mozjs_anon_sym_PIPE_EQ, mozjs_anon_sym_GT_GT_EQ,
      mozjs_anon_sym_GT_GT_GT_EQ, mozjs_anon_sym_LT_LT_EQ, mozjs_anon_sym_STAR_STAR_EQ,
      mozjs_anon_sym_AMP_AMP_EQ, mozjs_anon_sym_PIPE_PIPE_EQ, mozjs_anon_sym_QMARK_QMARK_EQ,
      1435, 20, mozjs_anon_sym_STAR, mozjs_anon_sym_in, mozjs_anon_sym_LT, mozjs_anon_sym_GT,
      mozjs_anon_sym_AMP_AMP, mozjs_anon_sym_PIPE_PIPE, mozjs_anon_sym_GT_GT,
      mozjs_anon_sym_GT_GT_GT, mozjs_anon_sym_LT_LT, mozjs_anon_sym_AMP, mozjs_anon_sym_CARET,
      mozjs_anon_sym_PIPE, mozjs_anon_sym_PLUS, mozjs_anon_sym_DASH, mozjs_anon_sym_SLASH,
      mozjs_anon_sym_PERCENT, mozjs_anon_sym_STAR_STAR, mozjs_anon_sym_EQ_EQ,
      mozjs_anon_sym_BANG_EQ, mozjs_anon_sym_QMARK_QMARK]"

definition mozjs_small_run_12862 :: "nat list" where
  "mozjs_small_run_12862 =
    [6, 595, 1, mozjs_anon_sym_EQ, 599, 1, mozjs_anon_sym_EQ_GT, 5, 2, mozjs_sym_html_comment,
      mozjs_sym_comment, 311, 14, mozjs_sym__ternary_qmark, mozjs_anon_sym_of,
      mozjs_anon_sym_LPAREN, mozjs_anon_sym_LBRACK, mozjs_anon_sym_DOT, mozjs_sym_optional_chain,
      mozjs_anon_sym_LT_EQ, mozjs_anon_sym_EQ_EQ_EQ, mozjs_anon_sym_BANG_EQ_EQ,
      mozjs_anon_sym_GT_EQ, mozjs_anon_sym_instanceof, mozjs_anon_sym_PLUS_PLUS,
      mozjs_anon_sym_DASH_DASH, mozjs_anon_sym_BQUOTE, 344, 15, mozjs_anon_sym_PLUS_EQ,
      mozjs_anon_sym_DASH_EQ, mozjs_anon_sym_STAR_EQ, mozjs_anon_sym_SLASH_EQ,
      mozjs_anon_sym_PERCENT_EQ, mozjs_anon_sym_CARET_EQ, mozjs_anon_sym_AMP_EQ,
      mozjs_anon_sym_PIPE_EQ, mozjs_anon_sym_GT_GT_EQ, mozjs_anon_sym_GT_GT_GT_EQ,
      mozjs_anon_sym_LT_LT_EQ, mozjs_anon_sym_STAR_STAR_EQ, mozjs_anon_sym_AMP_AMP_EQ,
      mozjs_anon_sym_PIPE_PIPE_EQ, mozjs_anon_sym_QMARK_QMARK_EQ, 307, 20, mozjs_anon_sym_STAR,
      mozjs_anon_sym_in, mozjs_anon_sym_LT, mozjs_anon_sym_GT, mozjs_anon_sym_AMP_AMP,
      mozjs_anon_sym_PIPE_PIPE, mozjs_anon_sym_GT_GT, mozjs_anon_sym_GT_GT_GT,
      mozjs_anon_sym_LT_LT, mozjs_anon_sym_AMP, mozjs_anon_sym_CARET, mozjs_anon_sym_PIPE,
      mozjs_anon_sym_PLUS, mozjs_anon_sym_DASH, mozjs_anon_sym_SLASH, mozjs_anon_sym_PERCENT,
      mozjs_anon_sym_STAR_STAR, mozjs_anon_sym_EQ_EQ, mozjs_anon_sym_BANG_EQ,
      mozjs_anon_sym_QMARK_QMARK]"

definition mozjs_small_run_12928 :: "nat list" where
  "mozjs_small_run_12928 =
    [6, 471, 1, mozjs_anon_sym_EQ, 599, 1, mozjs_anon_sym_EQ_GT, 5, 2, mozjs_sym_html_comment,
      mozjs_sym_comment, 311, 14, mozjs_sym__ternary_qmark, mozjs_anon_sym_of,
      mozjs_anon_sym_LPAREN, mozjs_anon_sym_LBRACK, mozjs_anon_sym_DOT, mozjs_sym_optional_chain,
      mozjs_anon_sym_LT_EQ, mozjs_anon_sym_EQ_EQ_EQ, mozjs_anon_sym_BANG_EQ_EQ,
      mozjs_anon_sym_GT_EQ, mozjs_anon_sym_instanceof, mozjs_anon_sym_PLUS_PLUS,
      mozjs_anon_sym_DASH_DASH, mozjs_anon_sym_BQUOTE, 344, 15, mozjs_anon_sym_PLUS_EQ,
      mozjs_anon_sym_DASH_EQ, mozjs_anon_sym_STAR_EQ, mozjs_anon_sym_SLASH_EQ,
      mozjs_anon_sym_PERCENT_EQ, mozjs_anon_sym_CARET_EQ, mozjs_anon_sym_AMP_EQ,
      mozjs_anon_sym_PIPE_EQ, mozjs_anon_sym_GT_GT_EQ, mozjs_anon_sym_GT_GT_GT_EQ,
      mozjs_anon_sym_LT_LT_EQ, mozjs_anon_sym_STAR_STAR_EQ, mozjs_anon_sym_AMP_AMP_EQ,
      mozjs_anon_sym_PIPE_PIPE_EQ, mozjs_anon_sym_QMARK_QMARK_EQ, 307, 20, mozjs_anon_sym_STAR,
      mozjs_anon_sym_in, mozjs_anon_sym_LT, mozjs_anon_sym_GT, mozjs_anon_sym_AMP_AMP,
      mozjs_anon_sym_PIPE_PIPE, mozjs_anon_sym_GT_GT, mozjs_anon_sym_GT_GT_GT,
      mozjs_anon_sym_LT_LT, mozjs_anon_sym_AMP, mozjs_anon_sym_CARET, mozjs_anon_sym_PIPE,
      mozjs_anon_sym_PLUS, mozjs_anon_sym_DASH, mozjs_anon_sym_SLASH, mozjs_anon_sym_PERCENT,
      mozjs_anon_sym_STAR_STAR, mozjs_anon_sym_EQ_EQ, mozjs_anon_sym_BANG_EQ,
      mozjs_anon_sym_QMARK_QMARK]"

definition mozjs_small_run_12994 :: "nat list" where
  "mozjs_small_run_12994 =
    [6, 631, 1, mozjs_anon_sym_EQ, 635, 1, mozjs_anon_sym_EQ_GT, 5, 2, mozjs_sym_html_comment,
      mozjs_sym_comment, 311, 14, mozjs_sym__ternary_qmark, mozjs_anon_sym_LBRACE,
      mozjs_anon_sym_LPAREN, mozjs_anon_sym_LBRACK, mozjs_anon_sym_DOT, mozjs_sym_optional_chain,
      mozjs_anon_sym_LT_EQ, mozjs_anon_sym_EQ_EQ_EQ, mozjs_anon_sym_BANG_EQ_EQ,
      mozjs_anon_sym_GT_EQ, mozjs_anon_sym_instanceof, mozjs_anon_sym_PLUS_PLUS,
      mozjs_anon_sym_DASH_DASH, mozjs_anon_sym_BQUOTE, 344, 15, mozjs_anon_sym_PLUS_EQ,
      mozjs_anon_sym_DASH_EQ, mozjs_anon_sym_STAR_EQ, mozjs_anon_sym_SLASH_EQ,
      mozjs_anon_sym_PERCENT_EQ, mozjs_anon_sym_CARET_EQ, mozjs_anon_sym_AMP_EQ,
      mozjs_anon_sym_PIPE_EQ, mozjs_anon_sym_GT_GT_EQ, mozjs_anon_sym_GT_GT_GT_EQ,
      mozjs_anon_sym_LT_LT_EQ, mozjs_anon_sym_STAR_STAR_EQ, mozjs_anon_sym_AMP_AMP_EQ,
      mozjs_anon_sym_PIPE_PIPE_EQ, mozjs_anon_sym_QMARK_QMARK_EQ, 307, 20, mozjs_anon_sym_STAR,
      mozjs_anon_sym_in, mozjs_anon_sym_LT, mozjs_anon_sym_GT, mozjs_anon_sym_AMP_AMP,
      mozjs_anon_sym_PIPE_PIPE, mozjs_anon_sym_GT_GT, mozjs_anon_sym_GT_GT_GT,
      mozjs_anon_sym_LT_LT, mozjs_anon_sym_AMP, mozjs_anon_sym_CARET, mozjs_anon_sym_PIPE,
      mozjs_anon_sym_PLUS, mozjs_anon_sym_DASH, mozjs_anon_sym_SLASH, mozjs_anon_sym_PERCENT,
      mozjs_anon_sym_STAR_STAR, mozjs_anon_sym_EQ_EQ, mozjs_anon_sym_BANG_EQ,
      mozjs_anon_sym_QMARK_QMARK]"

definition mozjs_small_run_13060 :: "nat list" where
  "mozjs_small_run_13060 =
    [8, 471, 1, mozjs_anon_sym_EQ, 534, 1, mozjs_anon_sym_EQ_GT, 548, 1, mozjs_anon_sym_in, 1559,
      1, mozjs_anon_sym_of, 5, 2, mozjs_sym_html_comment, mozjs_sym_comment, 311, 13,
      mozjs_sym__ternary_qmark, mozjs_anon_sym_LPAREN, mozjs_anon_sym_LBRACK, mozjs_anon_sym_DOT,
      mozjs_sym_optional_chain, mozjs_anon_sym_LT_EQ, mozjs_anon_sym_EQ_EQ_EQ,
      mozjs_anon_sym_BANG_EQ_EQ, mozjs_anon_sym_GT_EQ, mozjs_anon_sym_instanceof,
      mozjs_anon_sym_PLUS_PLUS, mozjs_anon_sym_DASH_DASH, mozjs_anon_sym_BQUOTE, 344, 15,
      mozjs_anon_sym_PLUS_EQ, mozjs_anon_sym_DASH_EQ, mozjs_anon_sym_STAR_EQ,
      mozjs_anon_sym_SLASH_EQ, mozjs_anon_sym_PERCENT_EQ, mozjs_anon_sym_CARET_EQ,
      mozjs_anon_sym_AMP_EQ, mozjs_anon_sym_PIPE_EQ, mozjs_anon_sym_GT_GT_EQ,
      mozjs_anon_sym_GT_GT_GT_EQ, mozjs_anon_sym_LT_LT_EQ, mozjs_anon_sym_STAR_STAR_EQ,
      mozjs_anon_sym_AMP_AMP_EQ, mozjs_anon_sym_PIPE_PIPE_EQ, mozjs_anon_sym_QMARK_QMARK_EQ, 307,
      19, mozjs_anon_sym_STAR, mozjs_anon_sym_LT, mozjs_anon_sym_GT, mozjs_anon_sym_AMP_AMP,
      mozjs_anon_sym_PIPE_PIPE, mozjs_anon_sym_GT_GT, mozjs_anon_sym_GT_GT_GT,
      mozjs_anon_sym_LT_LT, mozjs_anon_sym_AMP, mozjs_anon_sym_CARET, mozjs_anon_sym_PIPE,
      mozjs_anon_sym_PLUS, mozjs_anon_sym_DASH, mozjs_anon_sym_SLASH, mozjs_anon_sym_PERCENT,
      mozjs_anon_sym_STAR_STAR, mozjs_anon_sym_EQ_EQ, mozjs_anon_sym_BANG_EQ,
      mozjs_anon_sym_QMARK_QMARK]"

definition mozjs_small_run_13130 :: "nat list" where
  "mozjs_small_run_13130 =
    [6, 1472, 1, mozjs_anon_sym_EQ, 1538, 1, mozjs_anon_sym_EQ_GT, 5, 2, mozjs_sym_html_comment,
      mozjs_sym_comment, 1437, 14, mozjs_sym__ternary_qmark, mozjs_anon_sym_LPAREN,
      mozjs_anon_sym_COLON, mozjs_anon_sym_LBRACK, mozjs_anon_sym_DOT, mozjs_sym_optional_chain,
      mozjs_anon_sym_LT_EQ, mozjs_anon_sym_EQ_EQ_EQ, mozjs_anon_sym_BANG_EQ_EQ,
      mozjs_anon_sym_GT_EQ, mozjs_anon_sym_instanceof, mozjs_anon_sym_PLUS_PLUS,
      mozjs_anon_sym_DASH_DASH, mozjs_anon_sym_BQUOTE, 1446, 15, mozjs_anon_sym_PLUS_EQ,
      mozjs_anon_sym_DASH_EQ, mozjs_anon_sym_STAR_EQ, mozjs_anon_sym_SLASH_EQ,
      mozjs_anon_sym_PERCENT_EQ, mozjs_anon_sym_CARET_EQ, mozjs_anon_sym_AMP_EQ,
      mozjs_anon_sym_PIPE_EQ, mozjs_anon_sym_GT_GT_EQ, mozjs_anon_sym_GT_GT_GT_EQ,
      mozjs_anon_sym_LT_LT_EQ, mozjs_anon_sym_STAR_STAR_EQ, mozjs_anon_sym_AMP_AMP_EQ,
      mozjs_anon_sym_PIPE_PIPE_EQ, mozjs_anon_sym_QMARK_QMARK_EQ, 1435, 20, mozjs_anon_sym_STAR,
      mozjs_anon_sym_in, mozjs_anon_sym_LT, mozjs_anon_sym_GT, mozjs_anon_sym_AMP_AMP,
      mozjs_anon_sym_PIPE_PIPE, mozjs_anon_sym_GT_GT, mozjs_anon_sym_GT_GT_GT,
      mozjs_anon_sym_LT_LT, mozjs_anon_sym_AMP, mozjs_anon_sym_CARET, mozjs_anon_sym_PIPE,
      mozjs_anon_sym_PLUS, mozjs_anon_sym_DASH, mozjs_anon_sym_SLASH, mozjs_anon_sym_PERCENT,
      mozjs_anon_sym_STAR_STAR, mozjs_anon_sym_EQ_EQ, mozjs_anon_sym_BANG_EQ,
      mozjs_anon_sym_QMARK_QMARK]"

definition mozjs_small_run_13196 :: "nat list" where
  "mozjs_small_run_13196 =
    [8, 1472, 1, mozjs_anon_sym_EQ, 1538, 1, mozjs_anon_sym_EQ_GT, 1554, 1, mozjs_anon_sym_of,
      1556, 1, mozjs_anon_sym_in, 5, 2, mozjs_sym_html_comment, mozjs_sym_comment, 1437, 13,
      mozjs_sym__ternary_qmark, mozjs_anon_sym_LPAREN, mozjs_anon_sym_LBRACK, mozjs_anon_sym_DOT,
      mozjs_sym_optional_chain, mozjs_anon_sym_LT_EQ, mozjs_anon_sym_EQ_EQ_EQ,
      mozjs_anon_sym_BANG_EQ_EQ, mozjs_anon_sym_GT_EQ, mozjs_anon_sym_instanceof,
      mozjs_anon_sym_PLUS_PLUS, mozjs_anon_sym_DASH_DASH, mozjs_anon_sym_BQUOTE, 1446, 15,
      mozjs_anon_sym_PLUS_EQ, mozjs_anon_sym_DASH_EQ, mozjs_anon_sym_STAR_EQ,
      mozjs_anon_sym_SLASH_EQ, mozjs_anon_sym_PERCENT_EQ, mozjs_anon_sym_CARET_EQ,
      mozjs_anon_sym_AMP_EQ, mozjs_anon_sym_PIPE_EQ, mozjs_anon_sym_GT_GT_EQ,
      mozjs_anon_sym_GT_GT_GT_EQ, mozjs_anon_sym_LT_LT_EQ, mozjs_anon_sym_STAR_STAR_EQ,
      mozjs_anon_sym_AMP_AMP_EQ, mozjs_anon_sym_PIPE_PIPE_EQ, mozjs_anon_sym_QMARK_QMARK_EQ,
      1435, 19, mozjs_anon_sym_STAR, mozjs_anon_sym_LT, mozjs_anon_sym_GT,
      mozjs_anon_sym_AMP_AMP, mozjs_anon_sym_PIPE_PIPE, mozjs_anon_sym_GT_GT,
      mozjs_anon_sym_GT_GT_GT, mozjs_anon_sym_LT_LT, mozjs_anon_sym_AMP, mozjs_anon_sym_CARET,
      mozjs_anon_sym_PIPE, mozjs_anon_sym_PLUS, mozjs_anon_sym_DASH, mozjs_anon_sym_SLASH,
      mozjs_anon_sym_PERCENT, mozjs_anon_sym_STAR_STAR, mozjs_anon_sym_EQ_EQ,
      mozjs_anon_sym_BANG_EQ, mozjs_anon_sym_QMARK_QMARK]"

definition mozjs_small_run_13266 :: "nat list" where
  "mozjs_small_run_13266 =
    [6, 1568, 1, mozjs_anon_sym_EQ, 1570, 1, mozjs_anon_sym_EQ_GT, 5, 2, mozjs_sym_html_comment,
      mozjs_sym_comment, 1437, 14, mozjs_sym__ternary_qmark, mozjs_anon_sym_of,
      mozjs_anon_sym_LPAREN, mozjs_anon_sym_LBRACK, mozjs_anon_sym_DOT, mozjs_sym_optional_chain,
      mozjs_anon_sym_LT_EQ, mozjs_anon_sym_EQ_EQ_EQ, mozjs_anon_sym_BANG_EQ_EQ,
      mozjs_anon_sym_GT_EQ, mozjs_anon_sym_instanceof, mozjs_anon_sym_PLUS_PLUS,
      mozjs_anon_sym_DASH_DASH, mozjs_anon_sym_BQUOTE, 1446, 15, mozjs_anon_sym_PLUS_EQ,
      mozjs_anon_sym_DASH_EQ, mozjs_anon_sym_STAR_EQ, mozjs_anon_sym_SLASH_EQ,
      mozjs_anon_sym_PERCENT_EQ, mozjs_anon_sym_CARET_EQ, mozjs_anon_sym_AMP_EQ,
      mozjs_anon_sym_PIPE_EQ, mozjs_anon_sym_GT_GT_EQ, mozjs_anon_sym_GT_GT_GT_EQ,
      mozjs_anon_sym_LT_LT_EQ, mozjs_anon_sym_STAR_STAR_EQ, mozjs_anon_sym_AMP_AMP_EQ,
      mozjs_anon_sym_PIPE_PIPE_EQ, mozjs_anon_sym_QMARK_QMARK_EQ, 1435, 20, mozjs_anon_sym_STAR,
      mozjs_anon_sym_in, mozjs_anon_sym_LT, mozjs_anon_sym_GT, mozjs_anon_sym_AMP_AMP,
      mozjs_anon_sym_PIPE_PIPE, mozjs_anon_sym_GT_GT, mozjs_anon_sym_GT_GT_GT,
      mozjs_anon_sym_LT_LT, mozjs_anon_sym_AMP, mozjs_anon_sym_CARET, mozjs_anon_sym_PIPE,
      mozjs_anon_sym_PLUS, mozjs_anon_sym_DASH, mozjs_anon_sym_SLASH, mozjs_anon_sym_PERCENT,
      mozjs_anon_sym_STAR_STAR, mozjs_anon_sym_EQ_EQ, mozjs_anon_sym_BANG_EQ,
      mozjs_anon_sym_QMARK_QMARK]"

definition mozjs_small_run_13332 :: "nat list" where
  "mozjs_small_run_13332 =
    [6, 1472, 1, mozjs_anon_sym_EQ, 1570, 1, mozjs_anon_sym_EQ_GT, 5, 2, mozjs_sym_html_comment,
      mozjs_sym_comment, 1437, 14, mozjs_sym__ternary_qmark, mozjs_anon_sym_of,
      mozjs_anon_sym_LPAREN, mozjs_anon_sym_LBRACK, mozjs_anon_sym_DOT, mozjs_sym_optional_chain,
      mozjs_anon_sym_LT_EQ, mozjs_anon_sym_EQ_EQ_EQ, mozjs_anon_sym_BANG_EQ_EQ,
      mozjs_anon_sym_GT_EQ, mozjs_anon_sym_instanceof, mozjs_anon_sym_PLUS_PLUS,
      mozjs_anon_sym_DASH_DASH, mozjs_anon_sym_BQUOTE, 1446, 15, mozjs_anon_sym_PLUS_EQ,
      mozjs_anon_sym_DASH_EQ, mozjs_anon_sym_STAR_EQ, mozjs_anon_sym_SLASH_EQ,
      mozjs_anon_sym_PERCENT_EQ, mozjs_anon_sym_CARET_EQ, mozjs_anon_sym_AMP_EQ,
      mozjs_anon_sym_PIPE_EQ, mozjs_anon_sym_GT_GT_EQ, mozjs_anon_sym_GT_GT_GT_EQ,
      mozjs_anon_sym_LT_LT_EQ, mozjs_anon_sym_STAR_STAR_EQ, mozjs_anon_sym_AMP_AMP_EQ,
      mozjs_anon_sym_PIPE_PIPE_EQ, mozjs_anon_sym_QMARK_QMARK_EQ, 1435, 20, mozjs_anon_sym_STAR,
      mozjs_anon_sym_in, mozjs_anon_sym_LT, mozjs_anon_sym_GT, mozjs_anon_sym_AMP_AMP,
      mozjs_anon_sym_PIPE_PIPE, mozjs_anon_sym_GT_GT, mozjs_anon_sym_GT_GT_GT,
      mozjs_anon_sym_LT_LT, mozjs_anon_sym_AMP, mozjs_anon_sym_CARET, mozjs_anon_sym_PIPE,
      mozjs_anon_sym_PLUS, mozjs_anon_sym_DASH, mozjs_anon_sym_SLASH, mozjs_anon_sym_PERCENT,
      mozjs_anon_sym_STAR_STAR, mozjs_anon_sym_EQ_EQ, mozjs_anon_sym_BANG_EQ,
      mozjs_anon_sym_QMARK_QMARK]"

definition mozjs_small_run_13398 :: "nat list" where
  "mozjs_small_run_13398 =
    [5, 1566, 1, mozjs_anon_sym_EQ, 5, 2, mozjs_sym_html_comment, mozjs_sym_comment, 1437, 14,
      mozjs_sym__ternary_qmark, mozjs_anon_sym_LBRACE, mozjs_anon_sym_LPAREN,
      mozjs_anon_sym_LBRACK, mozjs_anon_sym_DOT, mozjs_sym_optional_chain, mozjs_anon_sym_LT_EQ,
      mozjs_anon_sym_EQ_EQ_EQ, mozjs_anon_sym_BANG_EQ_EQ, mozjs_anon_sym_GT_EQ,
      mozjs_anon_sym_instanceof, mozjs_anon_sym_PLUS_PLUS, mozjs_anon_sym_DASH_DASH,
      mozjs_anon_sym_BQUOTE, 1446, 15, mozjs_anon_sym_PLUS_EQ, mozjs_anon_sym_DASH_EQ,
      mozjs_anon_sym_STAR_EQ, mozjs_anon_sym_SLASH_EQ, mozjs_anon_sym_PERCENT_EQ,
      mozjs_anon_sym_CARET_EQ, mozjs_anon_sym_AMP_EQ, mozjs_anon_sym_PIPE_EQ,
      mozjs_anon_sym_GT_GT_EQ, mozjs_anon_sym_GT_GT_GT_EQ, mozjs_anon_sym_LT_LT_EQ,
      mozjs_anon_sym_STAR_STAR_EQ, mozjs_anon_sym_AMP_AMP_EQ, mozjs_anon_sym_PIPE_PIPE_EQ,
      mozjs_anon_sym_QMARK_QMARK_EQ, 1435, 20, mozjs_anon_sym_STAR, mozjs_anon_sym_in,
      mozjs_anon_sym_LT, mozjs_anon_sym_GT, mozjs_anon_sym_AMP_AMP, mozjs_anon_sym_PIPE_PIPE,
      mozjs_anon_sym_GT_GT, mozjs_anon_sym_GT_GT_GT, mozjs_anon_sym_LT_LT, mozjs_anon_sym_AMP,
      mozjs_anon_sym_CARET, mozjs_anon_sym_PIPE, mozjs_anon_sym_PLUS, mozjs_anon_sym_DASH,
      mozjs_anon_sym_SLASH, mozjs_anon_sym_PERCENT, mozjs_anon_sym_STAR_STAR,
      mozjs_anon_sym_EQ_EQ, mozjs_anon_sym_BANG_EQ, mozjs_anon_sym_QMARK_QMARK]"

definition mozjs_small_run_13461 :: "nat list" where
  "mozjs_small_run_13461 =
    [5, 1568, 1, mozjs_anon_sym_EQ, 5, 2, mozjs_sym_html_comment, mozjs_sym_comment, 1437, 14,
      mozjs_sym__ternary_qmark, mozjs_anon_sym_of, mozjs_anon_sym_LPAREN, mozjs_anon_sym_LBRACK,
      mozjs_anon_sym_DOT, mozjs_sym_optional_chain, mozjs_anon_sym_LT_EQ,
      mozjs_anon_sym_EQ_EQ_EQ, mozjs_anon_sym_BANG_EQ_EQ, mozjs_anon_sym_GT_EQ,
      mozjs_anon_sym_instanceof, mozjs_anon_sym_PLUS_PLUS, mozjs_anon_sym_DASH_DASH,
      mozjs_anon_sym_BQUOTE, 1446, 15, mozjs_anon_sym_PLUS_EQ, mozjs_anon_sym_DASH_EQ,
      mozjs_anon_sym_STAR_EQ, mozjs_anon_sym_SLASH_EQ, mozjs_anon_sym_PERCENT_EQ,
      mozjs_anon_sym_CARET_EQ, mozjs_anon_sym_AMP_EQ, mozjs_anon_sym_PIPE_EQ,
      mozjs_anon_sym_GT_GT_EQ, mozjs_anon_sym_GT_GT_GT_EQ, mozjs_anon_sym_LT_LT_EQ,
      mozjs_anon_sym_STAR_STAR_EQ, mozjs_anon_sym_AMP_AMP_EQ, mozjs_anon_sym_PIPE_PIPE_EQ,
      mozjs_anon_sym_QMARK_QMARK_EQ, 1435, 20, mozjs_anon_sym_STAR, mozjs_anon_sym_in,
      mozjs_anon_sym_LT, mozjs_anon_sym_GT, mozjs_anon_sym_AMP_AMP, mozjs_anon_sym_PIPE_PIPE,
      mozjs_anon_sym_GT_GT, mozjs_anon_sym_GT_GT_GT, mozjs_anon_sym_LT_LT, mozjs_anon_sym_AMP,
      mozjs_anon_sym_CARET, mozjs_anon_sym_PIPE, mozjs_anon_sym_PLUS, mozjs_anon_sym_DASH,
      mozjs_anon_sym_SLASH, mozjs_anon_sym_PERCENT, mozjs_anon_sym_STAR_STAR,
      mozjs_anon_sym_EQ_EQ, mozjs_anon_sym_BANG_EQ, mozjs_anon_sym_QMARK_QMARK]"

definition mozjs_small_run_13524 :: "nat list" where
  "mozjs_small_run_13524 =
    [7, 1472, 1, mozjs_anon_sym_EQ, 1554, 1, mozjs_anon_sym_of, 1556, 1, mozjs_anon_sym_in, 5, 2,
      mozjs_sym_html_comment, mozjs_sym_comment, 1437, 13, mozjs_sym__ternary_qmark,
      mozjs_anon_sym_LPAREN, mozjs_anon_sym_LBRACK, mozjs_anon_sym_DOT, mozjs_sym_optional_chain,
      mozjs_anon_sym_LT_EQ, mozjs_anon_sym_EQ_EQ_EQ, mozjs_anon_sym_BANG_EQ_EQ,
      mozjs_anon_sym_GT_EQ, mozjs_anon_sym_instanceof, mozjs_anon_sym_PLUS_PLUS,
      mozjs_anon_sym_DASH_DASH, mozjs_anon_sym_BQUOTE, 1446, 15, mozjs_anon_sym_PLUS_EQ,
      mozjs_anon_sym_DASH_EQ, mozjs_anon_sym_STAR_EQ, mozjs_anon_sym_SLASH_EQ,
      mozjs_anon_sym_PERCENT_EQ, mozjs_anon_sym_CARET_EQ, mozjs_anon_sym_AMP_EQ,
      mozjs_anon_sym_PIPE_EQ, mozjs_anon_sym_GT_GT_EQ, mozjs_anon_sym_GT_GT_GT_EQ,
      mozjs_anon_sym_LT_LT_EQ, mozjs_anon_sym_STAR_STAR_EQ, mozjs_anon_sym_AMP_AMP_EQ,
      mozjs_anon_sym_PIPE_PIPE_EQ, mozjs_anon_sym_QMARK_QMARK_EQ, 1435, 19, mozjs_anon_sym_STAR,
      mozjs_anon_sym_LT, mozjs_anon_sym_GT, mozjs_anon_sym_AMP_AMP, mozjs_anon_sym_PIPE_PIPE,
      mozjs_anon_sym_GT_GT, mozjs_anon_sym_GT_GT_GT, mozjs_anon_sym_LT_LT, mozjs_anon_sym_AMP,
      mozjs_anon_sym_CARET, mozjs_anon_sym_PIPE, mozjs_anon_sym_PLUS, mozjs_anon_sym_DASH,
      mozjs_anon_sym_SLASH, mozjs_anon_sym_PERCENT, mozjs_anon_sym_STAR_STAR,
      mozjs_anon_sym_EQ_EQ, mozjs_anon_sym_BANG_EQ, mozjs_anon_sym_QMARK_QMARK]"

definition mozjs_small_run_13591 :: "nat list" where
  "mozjs_small_run_13591 =
    [5, 725, 1, mozjs_anon_sym_EQ, 1572, 1, mozjs_sym__automatic_semicolon, 5, 2,
      mozjs_sym_html_comment, mozjs_sym_comment, 699, 12, mozjs_anon_sym_STAR, mozjs_anon_sym_in,
      mozjs_anon_sym_LT, mozjs_anon_sym_GT, mozjs_anon_sym_GT_GT, mozjs_anon_sym_AMP,
      mozjs_anon_sym_PIPE, mozjs_anon_sym_PLUS, mozjs_anon_sym_DASH, mozjs_anon_sym_SLASH,
      mozjs_anon_sym_EQ_EQ, mozjs_anon_sym_BANG_EQ, 697, 29, mozjs_sym__ternary_qmark,
      mozjs_anon_sym_LBRACE, mozjs_anon_sym_COMMA, mozjs_anon_sym_RBRACE, mozjs_anon_sym_of,
      mozjs_anon_sym_LPAREN, mozjs_anon_sym_SEMI, mozjs_anon_sym_RPAREN, mozjs_anon_sym_COLON,
      mozjs_anon_sym_LBRACK, mozjs_anon_sym_RBRACK, mozjs_anon_sym_DOT, mozjs_sym_optional_chain,
      mozjs_anon_sym_AMP_AMP, mozjs_anon_sym_PIPE_PIPE, mozjs_anon_sym_GT_GT_GT,
      mozjs_anon_sym_LT_LT, mozjs_anon_sym_CARET, mozjs_anon_sym_PERCENT,
      mozjs_anon_sym_STAR_STAR, mozjs_anon_sym_LT_EQ, mozjs_anon_sym_EQ_EQ_EQ,
      mozjs_anon_sym_BANG_EQ_EQ, mozjs_anon_sym_GT_EQ, mozjs_anon_sym_QMARK_QMARK,
      mozjs_anon_sym_instanceof, mozjs_anon_sym_PLUS_PLUS, mozjs_anon_sym_DASH_DASH,
      mozjs_anon_sym_BQUOTE]"

definition mozjs_small_run_13647 :: "nat list" where
  "mozjs_small_run_13647 =
    [10, 669, 1, mozjs_anon_sym_BQUOTE, 1578, 1, mozjs_anon_sym_LPAREN, 1580, 1,
      mozjs_anon_sym_LBRACK, 1582, 1, mozjs_anon_sym_DOT, 1584, 1, mozjs_sym_optional_chain, 595,
      1, mozjs_sym_template_string, 622, 1, mozjs_sym_arguments, 5, 2, mozjs_sym_html_comment,
      mozjs_sym_comment, 1574, 12, mozjs_anon_sym_STAR, mozjs_anon_sym_in, mozjs_anon_sym_LT,
      mozjs_anon_sym_GT, mozjs_anon_sym_GT_GT, mozjs_anon_sym_AMP, mozjs_anon_sym_PIPE,
      mozjs_anon_sym_PLUS, mozjs_anon_sym_DASH, mozjs_anon_sym_SLASH, mozjs_anon_sym_EQ_EQ,
      mozjs_anon_sym_BANG_EQ, 1576, 24, mozjs_sym__ternary_qmark, mozjs_anon_sym_LBRACE,
      mozjs_anon_sym_COMMA, mozjs_anon_sym_RBRACE, mozjs_anon_sym_of, mozjs_anon_sym_SEMI,
      mozjs_anon_sym_RPAREN, mozjs_anon_sym_COLON, mozjs_anon_sym_RBRACK, mozjs_anon_sym_AMP_AMP,
      mozjs_anon_sym_PIPE_PIPE, mozjs_anon_sym_GT_GT_GT, mozjs_anon_sym_LT_LT,
      mozjs_anon_sym_CARET, mozjs_anon_sym_PERCENT, mozjs_anon_sym_STAR_STAR,
      mozjs_anon_sym_LT_EQ, mozjs_anon_sym_EQ_EQ_EQ, mozjs_anon_sym_BANG_EQ_EQ,
      mozjs_anon_sym_GT_EQ, mozjs_anon_sym_QMARK_QMARK, mozjs_anon_sym_instanceof,
      mozjs_anon_sym_PLUS_PLUS, mozjs_anon_sym_DASH_DASH]"

definition mozjs_small_run_13713 :: "nat list" where
  "mozjs_small_run_13713 =
    [7, 669, 1, mozjs_anon_sym_BQUOTE, 1578, 1, mozjs_anon_sym_LPAREN, 595, 1,
      mozjs_sym_template_string, 622, 1, mozjs_sym_arguments, 5, 2, mozjs_sym_html_comment,
      mozjs_sym_comment, 1574, 12, mozjs_anon_sym_STAR, mozjs_anon_sym_in, mozjs_anon_sym_LT,
      mozjs_anon_sym_GT, mozjs_anon_sym_GT_GT, mozjs_anon_sym_AMP, mozjs_anon_sym_PIPE,
      mozjs_anon_sym_PLUS, mozjs_anon_sym_DASH, mozjs_anon_sym_SLASH, mozjs_anon_sym_EQ_EQ,
      mozjs_anon_sym_BANG_EQ, 1576, 27, mozjs_sym__ternary_qmark, mozjs_anon_sym_LBRACE,
      mozjs_anon_sym_COMMA, mozjs_anon_sym_RBRACE, mozjs_anon_sym_of, mozjs_anon_sym_SEMI,
      mozjs_anon_sym_RPAREN, mozjs_anon_sym_COLON, mozjs_anon_sym_LBRACK, mozjs_anon_sym_RBRACK,
      mozjs_anon_sym_DOT, mozjs_sym_optional_chain, mozjs_anon_sym_AMP_AMP,
      mozjs_anon_sym_PIPE_PIPE, mozjs_anon_sym_GT_GT_GT, mozjs_anon_sym_LT_LT,
      mozjs_anon_sym_CARET, mozjs_anon_sym_PERCENT, mozjs_anon_sym_STAR_STAR,
      mozjs_anon_sym_LT_EQ, mozjs_anon_sym_EQ_EQ_EQ, mozjs_anon_sym_BANG_EQ_EQ,
      mozjs_anon_sym_GT_EQ, mozjs_anon_sym_QMARK_QMARK, mozjs_anon_sym_instanceof,
      mozjs_anon_sym_PLUS_PLUS, mozjs_anon_sym_DASH_DASH]"

definition mozjs_small_run_13773 :: "nat list" where
  "mozjs_small_run_13773 =
    [8, 669, 1, mozjs_anon_sym_BQUOTE, 1580, 1, mozjs_anon_sym_LBRACK, 1582, 1,
      mozjs_anon_sym_DOT, 1584, 1, mozjs_sym_optional_chain, 595, 1, mozjs_sym_template_string,
      5, 2, mozjs_sym_html_comment, mozjs_sym_comment, 1586, 12, mozjs_anon_sym_STAR,
      mozjs_anon_sym_in, mozjs_anon_sym_LT, mozjs_anon_sym_GT, mozjs_anon_sym_GT_GT,
      mozjs_anon_sym_AMP, mozjs_anon_sym_PIPE, mozjs_anon_sym_PLUS, mozjs_anon_sym_DASH,
      mozjs_anon_sym_SLASH, mozjs_anon_sym_EQ_EQ, mozjs_anon_sym_BANG_EQ, 1588, 25,
      mozjs_sym__ternary_qmark, mozjs_anon_sym_LBRACE, mozjs_anon_sym_COMMA,
      mozjs_anon_sym_RBRACE, mozjs_anon_sym_of, mozjs_anon_sym_LPAREN, mozjs_anon_sym_SEMI,
      mozjs_anon_sym_RPAREN, mozjs_anon_sym_COLON, mozjs_anon_sym_RBRACK, mozjs_anon_sym_AMP_AMP,
      mozjs_anon_sym_PIPE_PIPE, mozjs_anon_sym_GT_GT_GT, mozjs_anon_sym_LT_LT,
      mozjs_anon_sym_CARET, mozjs_anon_sym_PERCENT, mozjs_anon_sym_STAR_STAR,
      mozjs_anon_sym_LT_EQ, mozjs_anon_sym_EQ_EQ_EQ, mozjs_anon_sym_BANG_EQ_EQ,
      mozjs_anon_sym_GT_EQ, mozjs_anon_sym_QMARK_QMARK, mozjs_anon_sym_instanceof,
      mozjs_anon_sym_PLUS_PLUS, mozjs_anon_sym_DASH_DASH]"

definition mozjs_small_run_13834 :: "nat list" where
  "mozjs_small_run_13834 =
    [8, 1578, 1, mozjs_anon_sym_LPAREN, 1580, 1, mozjs_anon_sym_LBRACK, 1582, 1,
      mozjs_anon_sym_DOT, 1594, 1, mozjs_sym_optional_chain, 639, 1, mozjs_sym_arguments, 5, 2,
      mozjs_sym_html_comment, mozjs_sym_comment, 1590, 12, mozjs_anon_sym_STAR,
      mozjs_anon_sym_in, mozjs_anon_sym_LT, mozjs_anon_sym_GT, mozjs_anon_sym_GT_GT,
      mozjs_anon_sym_AMP, mozjs_anon_sym_PIPE, mozjs_anon_sym_PLUS, mozjs_anon_sym_DASH,
      mozjs_anon_sym_SLASH, mozjs_anon_sym_EQ_EQ, mozjs_anon_sym_BANG_EQ, 1592, 25,
      mozjs_sym__ternary_qmark, mozjs_anon_sym_LBRACE, mozjs_anon_sym_COMMA,
      mozjs_anon_sym_RBRACE, mozjs_anon_sym_of, mozjs_anon_sym_SEMI, mozjs_anon_sym_RPAREN,
      mozjs_anon_sym_COLON, mozjs_anon_sym_RBRACK, mozjs_anon_sym_AMP_AMP,
      mozjs_anon_sym_PIPE_PIPE, mozjs_anon_sym_GT_GT_GT, mozjs_anon_sym_LT_LT,
      mozjs_anon_sym_CARET, mozjs_anon_sym_PERCENT, mozjs_anon_sym_STAR_STAR,
      mozjs_anon_sym_LT_EQ, mozjs_anon_sym_EQ_EQ_EQ, mozjs_anon_sym_BANG_EQ_EQ,
      mozjs_anon_sym_GT_EQ, mozjs_anon_sym_QMARK_QMARK, mozjs_anon_sym_instanceof,
      mozjs_anon_sym_PLUS_PLUS, mozjs_anon_sym_DASH_DASH, mozjs_anon_sym_BQUOTE]"

definition mozjs_small_run_13895 :: "nat list" where
  "mozjs_small_run_13895 =
    [9, 1578, 1, mozjs_anon_sym_LPAREN, 1580, 1, mozjs_anon_sym_LBRACK, 1582, 1,
      mozjs_anon_sym_DOT, 1594, 1, mozjs_sym_optional_chain, 639, 1, mozjs_sym_arguments, 5, 2,
      mozjs_sym_html_comment, mozjs_sym_comment, 1600, 2, mozjs_anon_sym_PLUS_PLUS,
      mozjs_anon_sym_DASH_DASH, 1596, 12, mozjs_anon_sym_STAR, mozjs_anon_sym_in,
      mozjs_anon_sym_LT, mozjs_anon_sym_GT, mozjs_anon_sym_GT_GT, mozjs_anon_sym_AMP,
      mozjs_anon_sym_PIPE, mozjs_anon_sym_PLUS, mozjs_anon_sym_DASH, mozjs_anon_sym_SLASH,
      mozjs_anon_sym_EQ_EQ, mozjs_anon_sym_BANG_EQ, 1598, 23, mozjs_sym__ternary_qmark,
      mozjs_anon_sym_LBRACE, mozjs_anon_sym_COMMA, mozjs_anon_sym_RBRACE, mozjs_anon_sym_of,
      mozjs_anon_sym_SEMI, mozjs_anon_sym_RPAREN, mozjs_anon_sym_COLON, mozjs_anon_sym_RBRACK,
      mozjs_anon_sym_AMP_AMP, mozjs_anon_sym_PIPE_PIPE, mozjs_anon_sym_GT_GT_GT,
      mozjs_anon_sym_LT_LT, mozjs_anon_sym_CARET, mozjs_anon_sym_PERCENT,
      mozjs_anon_sym_STAR_STAR, mozjs_anon_sym_LT_EQ, mozjs_anon_sym_EQ_EQ_EQ,
      mozjs_anon_sym_BANG_EQ_EQ, mozjs_anon_sym_GT_EQ, mozjs_anon_sym_QMARK_QMARK,
      mozjs_anon_sym_instanceof, mozjs_anon_sym_BQUOTE]"

definition mozjs_small_run_13958 :: "nat list" where
  "mozjs_small_run_13958 =
    [5, 669, 1, mozjs_anon_sym_BQUOTE, 595, 1, mozjs_sym_template_string, 5, 2,
      mozjs_sym_html_comment, mozjs_sym_comment, 1586, 12, mozjs_anon_sym_STAR,
      mozjs_anon_sym_in, mozjs_anon_sym_LT, mozjs_anon_sym_GT, mozjs_anon_sym_GT_GT,
      mozjs_anon_sym_AMP, mozjs_anon_sym_PIPE, mozjs_anon_sym_PLUS, mozjs_anon_sym_DASH,
      mozjs_anon_sym_SLASH, mozjs_anon_sym_EQ_EQ, mozjs_anon_sym_BANG_EQ, 1588, 28,
      mozjs_sym__ternary_qmark, mozjs_anon_sym_LBRACE, mozjs_anon_sym_COMMA,
      mozjs_anon_sym_RBRACE, mozjs_anon_sym_of, mozjs_anon_sym_LPAREN, mozjs_anon_sym_SEMI,
      mozjs_anon_sym_RPAREN, mozjs_anon_sym_COLON, mozjs_anon_sym_LBRACK, mozjs_anon_sym_RBRACK,
      mozjs_anon_sym_DOT, mozjs_sym_optional_chain, mozjs_anon_sym_AMP_AMP,
      mozjs_anon_sym_PIPE_PIPE, mozjs_anon_sym_GT_GT_GT, mozjs_anon_sym_LT_LT,
      mozjs_anon_sym_CARET, mozjs_anon_sym_PERCENT, mozjs_anon_sym_STAR_STAR,
      mozjs_anon_sym_LT_EQ, mozjs_anon_sym_EQ_EQ_EQ, mozjs_anon_sym_BANG_EQ_EQ,
      mozjs_anon_sym_GT_EQ, mozjs_anon_sym_QMARK_QMARK, mozjs_anon_sym_instanceof,
      mozjs_anon_sym_PLUS_PLUS, mozjs_anon_sym_DASH_DASH]"

definition mozjs_small_run_14013 :: "nat list" where
  "mozjs_small_run_14013 =
    [4, 1602, 1, mozjs_sym__automatic_semicolon, 5, 2, mozjs_sym_html_comment, mozjs_sym_comment,
      705, 12, mozjs_anon_sym_STAR, mozjs_anon_sym_in, mozjs_anon_sym_LT, mozjs_anon_sym_GT,
      mozjs_anon_sym_GT_GT, mozjs_anon_sym_AMP, mozjs_anon_sym_PIPE, mozjs_anon_sym_PLUS,
      mozjs_anon_sym_DASH, mozjs_anon_sym_SLASH, mozjs_anon_sym_EQ_EQ, mozjs_anon_sym_BANG_EQ,
      703, 29, mozjs_sym__ternary_qmark, mozjs_anon_sym_LBRACE, mozjs_anon_sym_COMMA,
      mozjs_anon_sym_RBRACE, mozjs_anon_sym_of, mozjs_anon_sym_LPAREN, mozjs_anon_sym_SEMI,
      mozjs_anon_sym_RPAREN, mozjs_anon_sym_COLON, mozjs_anon_sym_LBRACK, mozjs_anon_sym_RBRACK,
      mozjs_anon_sym_DOT, mozjs_sym_optional_chain, mozjs_anon_sym_AMP_AMP,
      mozjs_anon_sym_PIPE_PIPE, mozjs_anon_sym_GT_GT_GT, mozjs_anon_sym_LT_LT,
      mozjs_anon_sym_CARET, mozjs_anon_sym_PERCENT, mozjs_anon_sym_STAR_STAR,
      mozjs_anon_sym_LT_EQ, mozjs_anon_sym_EQ_EQ_EQ, mozjs_anon_sym_BANG_EQ_EQ,
      mozjs_anon_sym_GT_EQ, mozjs_anon_sym_QMARK_QMARK, mozjs_anon_sym_instanceof,
      mozjs_anon_sym_PLUS_PLUS, mozjs_anon_sym_DASH_DASH, mozjs_anon_sym_BQUOTE]"

definition mozjs_small_run_14066 :: "nat list" where
  "mozjs_small_run_14066 =
    [4, 1472, 1, mozjs_anon_sym_EQ, 5, 2, mozjs_sym_html_comment, mozjs_sym_comment, 1435, 12,
      mozjs_anon_sym_STAR, mozjs_anon_sym_in, mozjs_anon_sym_LT, mozjs_anon_sym_GT,
      mozjs_anon_sym_GT_GT, mozjs_anon_sym_AMP, mozjs_anon_sym_PIPE, mozjs_anon_sym_PLUS,
      mozjs_anon_sym_DASH, mozjs_anon_sym_SLASH, mozjs_anon_sym_EQ_EQ, mozjs_anon_sym_BANG_EQ,
      1437, 29, mozjs_sym__ternary_qmark, mozjs_anon_sym_LBRACE, mozjs_anon_sym_COMMA,
      mozjs_anon_sym_RBRACE, mozjs_anon_sym_of, mozjs_anon_sym_LPAREN, mozjs_anon_sym_SEMI,
      mozjs_anon_sym_RPAREN, mozjs_anon_sym_COLON, mozjs_anon_sym_LBRACK, mozjs_anon_sym_RBRACK,
      mozjs_anon_sym_DOT, mozjs_sym_optional_chain, mozjs_anon_sym_AMP_AMP,
      mozjs_anon_sym_PIPE_PIPE, mozjs_anon_sym_GT_GT_GT, mozjs_anon_sym_LT_LT,
      mozjs_anon_sym_CARET, mozjs_anon_sym_PERCENT, mozjs_anon_sym_STAR_STAR,
      mozjs_anon_sym_LT_EQ, mozjs_anon_sym_EQ_EQ_EQ, mozjs_anon_sym_BANG_EQ_EQ,
      mozjs_anon_sym_GT_EQ, mozjs_anon_sym_QMARK_QMARK, mozjs_anon_sym_instanceof,
      mozjs_anon_sym_PLUS_PLUS, mozjs_anon_sym_DASH_DASH, mozjs_anon_sym_BQUOTE]"

definition mozjs_small_run_14119 :: "nat list" where
  "mozjs_small_run_14119 =
    [4, 1572, 1, mozjs_sym__automatic_semicolon, 5, 2, mozjs_sym_html_comment, mozjs_sym_comment,
      699, 12, mozjs_anon_sym_STAR, mozjs_anon_sym_in, mozjs_anon_sym_LT, mozjs_anon_sym_GT,
      mozjs_anon_sym_GT_GT, mozjs_anon_sym_AMP, mozjs_anon_sym_PIPE, mozjs_anon_sym_PLUS,
      mozjs_anon_sym_DASH, mozjs_anon_sym_SLASH, mozjs_anon_sym_EQ_EQ, mozjs_anon_sym_BANG_EQ,
      697, 29, mozjs_sym__ternary_qmark, mozjs_anon_sym_LBRACE, mozjs_anon_sym_COMMA,
      mozjs_anon_sym_RBRACE, mozjs_anon_sym_of, mozjs_anon_sym_LPAREN, mozjs_anon_sym_SEMI,
      mozjs_anon_sym_RPAREN, mozjs_anon_sym_COLON, mozjs_anon_sym_LBRACK, mozjs_anon_sym_RBRACK,
      mozjs_anon_sym_DOT, mozjs_sym_optional_chain, mozjs_anon_sym_AMP_AMP,
      mozjs_anon_sym_PIPE_PIPE, mozjs_anon_sym_GT_GT_GT, mozjs_anon_sym_LT_LT,
      mozjs_anon_sym_CARET, mozjs_anon_sym_PERCENT, mozjs_anon_sym_STAR_STAR,
      mozjs_anon_sym_LT_EQ, mozjs_anon_sym_EQ_EQ_EQ, mozjs_anon_sym_BANG_EQ_EQ,
      mozjs_anon_sym_GT_EQ, mozjs_anon_sym_QMARK_QMARK, mozjs_anon_sym_instanceof,
      mozjs_anon_sym_PLUS_PLUS, mozjs_anon_sym_DASH_DASH, mozjs_anon_sym_BQUOTE]"

definition mozjs_small_run_14172 :: "nat list" where
  "mozjs_small_run_14172 =
    [9, 1578, 1, mozjs_anon_sym_LPAREN, 1580, 1, mozjs_anon_sym_LBRACK, 1582, 1,
      mozjs_anon_sym_DOT, 1594, 1, mozjs_sym_optional_chain, 639, 1, mozjs_sym_arguments, 5, 2,
      mozjs_sym_html_comment, mozjs_sym_comment, 1600, 2, mozjs_anon_sym_PLUS_PLUS,
      mozjs_anon_sym_DASH_DASH, 1604, 12, mozjs_anon_sym_STAR, mozjs_anon_sym_in,
      mozjs_anon_sym_LT, mozjs_anon_sym_GT, mozjs_anon_sym_GT_GT, mozjs_anon_sym_AMP,
      mozjs_anon_sym_PIPE, mozjs_anon_sym_PLUS, mozjs_anon_sym_DASH, mozjs_anon_sym_SLASH,
      mozjs_anon_sym_EQ_EQ, mozjs_anon_sym_BANG_EQ, 1606, 23, mozjs_sym__ternary_qmark,
      mozjs_anon_sym_LBRACE, mozjs_anon_sym_COMMA, mozjs_anon_sym_RBRACE, mozjs_anon_sym_of,
      mozjs_anon_sym_SEMI, mozjs_anon_sym_RPAREN, mozjs_anon_sym_COLON, mozjs_anon_sym_RBRACK,
      mozjs_anon_sym_AMP_AMP, mozjs_anon_sym_PIPE_PIPE, mozjs_anon_sym_GT_GT_GT,
      mozjs_anon_sym_LT_LT, mozjs_anon_sym_CARET, mozjs_anon_sym_PERCENT,
      mozjs_anon_sym_STAR_STAR, mozjs_anon_sym_LT_EQ, mozjs_anon_sym_EQ_EQ_EQ,
      mozjs_anon_sym_BANG_EQ_EQ, mozjs_anon_sym_GT_EQ, mozjs_anon_sym_QMARK_QMARK,
      mozjs_anon_sym_instanceof, mozjs_anon_sym_BQUOTE]"

definition mozjs_small_run_14235 :: "nat list" where
  "mozjs_small_run_14235 =
    [3, 5, 2, mozjs_sym_html_comment, mozjs_sym_comment, 1608, 12, mozjs_anon_sym_STAR,
      mozjs_anon_sym_in, mozjs_anon_sym_LT, mozjs_anon_sym_GT, mozjs_anon_sym_GT_GT,
      mozjs_anon_sym_AMP, mozjs_anon_sym_PIPE, mozjs_anon_sym_PLUS, mozjs_anon_sym_DASH,
      mozjs_anon_sym_SLASH, mozjs_anon_sym_EQ_EQ, mozjs_anon_sym_BANG_EQ, 1610, 29,
      mozjs_sym__ternary_qmark, mozjs_anon_sym_LBRACE, mozjs_anon_sym_COMMA,
      mozjs_anon_sym_RBRACE, mozjs_anon_sym_of, mozjs_anon_sym_LPAREN, mozjs_anon_sym_SEMI,
      mozjs_anon_sym_RPAREN, mozjs_anon_sym_COLON, mozjs_anon_sym_LBRACK, mozjs_anon_sym_RBRACK,
      mozjs_anon_sym_DOT, mozjs_sym_optional_chain, mozjs_anon_sym_AMP_AMP,
      mozjs_anon_sym_PIPE_PIPE, mozjs_anon_sym_GT_GT_GT, mozjs_anon_sym_LT_LT,
      mozjs_anon_sym_CARET, mozjs_anon_sym_PERCENT, mozjs_anon_sym_STAR_STAR,
      mozjs_anon_sym_LT_EQ, mozjs_anon_sym_EQ_EQ_EQ, mozjs_anon_sym_BANG_EQ_EQ,
      mozjs_anon_sym_GT_EQ, mozjs_anon_sym_QMARK_QMARK, mozjs_anon_sym_instanceof,
      mozjs_anon_sym_PLUS_PLUS, mozjs_anon_sym_DASH_DASH, mozjs_anon_sym_BQUOTE]"

definition mozjs_small_run_14285 :: "nat list" where
  "mozjs_small_run_14285 =
    [3, 5, 2, mozjs_sym_html_comment, mozjs_sym_comment, 743, 12, mozjs_anon_sym_STAR,
      mozjs_anon_sym_in, mozjs_anon_sym_LT, mozjs_anon_sym_GT, mozjs_anon_sym_GT_GT,
      mozjs_anon_sym_AMP, mozjs_anon_sym_PIPE, mozjs_anon_sym_PLUS, mozjs_anon_sym_DASH,
      mozjs_anon_sym_SLASH, mozjs_anon_sym_EQ_EQ, mozjs_anon_sym_BANG_EQ, 745, 29,
      mozjs_sym__ternary_qmark, mozjs_anon_sym_LBRACE, mozjs_anon_sym_COMMA,
      mozjs_anon_sym_RBRACE, mozjs_anon_sym_of, mozjs_anon_sym_LPAREN, mozjs_anon_sym_SEMI,
      mozjs_anon_sym_RPAREN, mozjs_anon_sym_COLON, mozjs_anon_sym_LBRACK, mozjs_anon_sym_RBRACK,
      mozjs_anon_sym_DOT, mozjs_sym_optional_chain, mozjs_anon_sym_AMP_AMP,
      mozjs_anon_sym_PIPE_PIPE, mozjs_anon_sym_GT_GT_GT, mozjs_anon_sym_LT_LT,
      mozjs_anon_sym_CARET, mozjs_anon_sym_PERCENT, mozjs_anon_sym_STAR_STAR,
      mozjs_anon_sym_LT_EQ, mozjs_anon_sym_EQ_EQ_EQ, mozjs_anon_sym_BANG_EQ_EQ,
      mozjs_anon_sym_GT_EQ, mozjs_anon_sym_QMARK_QMARK, mozjs_anon_sym_instanceof,
      mozjs_anon_sym_PLUS_PLUS, mozjs_anon_sym_DASH_DASH, mozjs_anon_sym_BQUOTE]"

definition mozjs_small_run_14335 :: "nat list" where
  "mozjs_small_run_14335 =
    [3, 5, 2, mozjs_sym_html_comment, mozjs_sym_comment, 1612, 12, mozjs_anon_sym_STAR,
      mozjs_anon_sym_in, mozjs_anon_sym_LT, mozjs_anon_sym_GT, mozjs_anon_sym_GT_GT,
      mozjs_anon_sym_AMP, mozjs_anon_sym_PIPE, mozjs_anon_sym_PLUS, mozjs_anon_sym_DASH,
      mozjs_anon_sym_SLASH, mozjs_anon_sym_EQ_EQ, mozjs_anon_sym_BANG_EQ, 1614, 29,
      mozjs_sym__ternary_qmark, mozjs_anon_sym_LBRACE, mozjs_anon_sym_COMMA,
      mozjs_anon_sym_RBRACE, mozjs_anon_sym_of, mozjs_anon_sym_LPAREN, mozjs_anon_sym_SEMI,
      mozjs_anon_sym_RPAREN, mozjs_anon_sym_COLON, mozjs_anon_sym_LBRACK, mozjs_anon_sym_RBRACK,
      mozjs_anon_sym_DOT, mozjs_sym_optional_chain, mozjs_anon_sym_AMP_AMP,
      mozjs_anon_sym_PIPE_PIPE, mozjs_anon_sym_GT_GT_GT, mozjs_anon_sym_LT_LT,
      mozjs_anon_sym_CARET, mozjs_anon_sym_PERCENT, mozjs_anon_sym_STAR_STAR,
      mozjs_anon_sym_LT_EQ, mozjs_anon_sym_EQ_EQ_EQ, mozjs_anon_sym_BANG_EQ_EQ,
      mozjs_anon_sym_GT_EQ, mozjs_anon_sym_QMARK_QMARK, mozjs_anon_sym_instanceof,
      mozjs_anon_sym_PLUS_PLUS, mozjs_anon_sym_DASH_DASH, mozjs_anon_sym_BQUOTE]"

definition mozjs_small_run_14385 :: "nat list" where
  "mozjs_small_run_14385 =
    [3, 5, 2, mozjs_sym_html_comment, mozjs_sym_comment, 1616, 12, mozjs_anon_sym_STAR,
      mozjs_anon_sym_in, mozjs_anon_sym_LT, mozjs_anon_sym_GT, mozjs_anon_sym_GT_GT,
      mozjs_anon_sym_AMP, mozjs_anon_sym_PIPE, mozjs_anon_sym_PLUS, mozjs_anon_sym_DASH,
      mozjs_anon_sym_SLASH, mozjs_anon_sym_EQ_EQ, mozjs_anon_sym_BANG_EQ, 1618, 29,
      mozjs_sym__ternary_qmark, mozjs_anon_sym_LBRACE, mozjs_anon_sym_COMMA,
      mozjs_anon_sym_RBRACE, mozjs_anon_sym_of, mozjs_anon_sym_LPAREN, mozjs_anon_sym_SEMI,
      mozjs_anon_sym_RPAREN, mozjs_anon_sym_COLON, mozjs_anon_sym_LBRACK, mozjs_anon_sym_RBRACK,
      mozjs_anon_sym_DOT, mozjs_sym_optional_chain, mozjs_anon_sym_AMP_AMP,
      mozjs_anon_sym_PIPE_PIPE, mozjs_anon_sym_GT_GT_GT, mozjs_anon_sym_LT_LT,
      mozjs_anon_sym_CARET, mozjs_anon_sym_PERCENT, mozjs_anon_sym_STAR_STAR,
      mozjs_anon_sym_LT_EQ, mozjs_anon_sym_EQ_EQ_EQ, mozjs_anon_sym_BANG_EQ_EQ,
      mozjs_anon_sym_GT_EQ, mozjs_anon_sym_QMARK_QMARK, mozjs_anon_sym_instanceof,
      mozjs_anon_sym_PLUS_PLUS, mozjs_anon_sym_DASH_DASH, mozjs_anon_sym_BQUOTE]"

definition mozjs_small_run_14435 :: "nat list" where
  "mozjs_small_run_14435 =
    [3, 5, 2, mozjs_sym_html_comment, mozjs_sym_comment, 1620, 12, mozjs_anon_sym_STAR,
      mozjs_anon_sym_in, mozjs_anon_sym_LT, mozjs_anon_sym_GT, mozjs_anon_sym_GT_GT,
      mozjs_anon_sym_AMP, mozjs_anon_sym_PIPE, mozjs_anon_sym_PLUS, mozjs_anon_sym_DASH,
      mozjs_anon_sym_SLASH, mozjs_anon_sym_EQ_EQ, mozjs_anon_sym_BANG_EQ, 1622, 29,
      mozjs_sym__ternary_qmark, mozjs_anon_sym_LBRACE, mozjs_anon_sym_COMMA,
      mozjs_anon_sym_RBRACE, mozjs_anon_sym_of, mozjs_anon_sym_LPAREN, mozjs_anon_sym_SEMI,
      mozjs_anon_sym_RPAREN, mozjs_anon_sym_COLON, mozjs_anon_sym_LBRACK, mozjs_anon_sym_RBRACK,
      mozjs_anon_sym_DOT, mozjs_sym_optional_chain, mozjs_anon_sym_AMP_AMP,
      mozjs_anon_sym_PIPE_PIPE, mozjs_anon_sym_GT_GT_GT, mozjs_anon_sym_LT_LT,
      mozjs_anon_sym_CARET, mozjs_anon_sym_PERCENT, mozjs_anon_sym_STAR_STAR,
      mozjs_anon_sym_LT_EQ, mozjs_anon_sym_EQ_EQ_EQ, mozjs_anon_sym_BANG_EQ_EQ,
      mozjs_anon_sym_GT_EQ, mozjs_anon_sym_QMARK_QMARK, mozjs_anon_sym_instanceof,
      mozjs_anon_sym_PLUS_PLUS, mozjs_anon_sym_DASH_DASH, mozjs_anon_sym_BQUOTE]"

definition mozjs_small_run_14485 :: "nat list" where
  "mozjs_small_run_14485 =
    [3, 5, 2, mozjs_sym_html_comment, mozjs_sym_comment, 1624, 12, mozjs_anon_sym_STAR,
      mozjs_anon_sym_in, mozjs_anon_sym_LT, mozjs_anon_sym_GT, mozjs_anon_sym_GT_GT,
      mozjs_anon_sym_AMP, mozjs_anon_sym_PIPE, mozjs_anon_sym_PLUS, mozjs_anon_sym_DASH,
      mozjs_anon_sym_SLASH, mozjs_anon_sym_EQ_EQ, mozjs_anon_sym_BANG_EQ, 1626, 29,
      mozjs_sym__ternary_qmark, mozjs_anon_sym_LBRACE, mozjs_anon_sym_COMMA,
      mozjs_anon_sym_RBRACE, mozjs_anon_sym_of, mozjs_anon_sym_LPAREN, mozjs_anon_sym_SEMI,
      mozjs_anon_sym_RPAREN, mozjs_anon_sym_COLON, mozjs_anon_sym_LBRACK, mozjs_anon_sym_RBRACK,
      mozjs_anon_sym_DOT, mozjs_sym_optional_chain, mozjs_anon_sym_AMP_AMP,
      mozjs_anon_sym_PIPE_PIPE, mozjs_anon_sym_GT_GT_GT, mozjs_anon_sym_LT_LT,
      mozjs_anon_sym_CARET, mozjs_anon_sym_PERCENT, mozjs_anon_sym_STAR_STAR,
      mozjs_anon_sym_LT_EQ, mozjs_anon_sym_EQ_EQ_EQ, mozjs_anon_sym_BANG_EQ_EQ,
      mozjs_anon_sym_GT_EQ, mozjs_anon_sym_QMARK_QMARK, mozjs_anon_sym_instanceof,
      mozjs_anon_sym_PLUS_PLUS, mozjs_anon_sym_DASH_DASH, mozjs_anon_sym_BQUOTE]"

definition mozjs_small_run_14535 :: "nat list" where
  "mozjs_small_run_14535 =
    [3, 5, 2, mozjs_sym_html_comment, mozjs_sym_comment, 1628, 12, mozjs_anon_sym_STAR,
      mozjs_anon_sym_in, mozjs_anon_sym_LT, mozjs_anon_sym_GT, mozjs_anon_sym_GT_GT,
      mozjs_anon_sym_AMP, mozjs_anon_sym_PIPE, mozjs_anon_sym_PLUS, mozjs_anon_sym_DASH,
      mozjs_anon_sym_SLASH, mozjs_anon_sym_EQ_EQ, mozjs_anon_sym_BANG_EQ, 1630, 29,
      mozjs_sym__ternary_qmark, mozjs_anon_sym_LBRACE, mozjs_anon_sym_COMMA,
      mozjs_anon_sym_RBRACE, mozjs_anon_sym_of, mozjs_anon_sym_LPAREN, mozjs_anon_sym_SEMI,
      mozjs_anon_sym_RPAREN, mozjs_anon_sym_COLON, mozjs_anon_sym_LBRACK, mozjs_anon_sym_RBRACK,
      mozjs_anon_sym_DOT, mozjs_sym_optional_chain, mozjs_anon_sym_AMP_AMP,
      mozjs_anon_sym_PIPE_PIPE, mozjs_anon_sym_GT_GT_GT, mozjs_anon_sym_LT_LT,
      mozjs_anon_sym_CARET, mozjs_anon_sym_PERCENT, mozjs_anon_sym_STAR_STAR,
      mozjs_anon_sym_LT_EQ, mozjs_anon_sym_EQ_EQ_EQ, mozjs_anon_sym_BANG_EQ_EQ,
      mozjs_anon_sym_GT_EQ, mozjs_anon_sym_QMARK_QMARK, mozjs_anon_sym_instanceof,
      mozjs_anon_sym_PLUS_PLUS, mozjs_anon_sym_DASH_DASH, mozjs_anon_sym_BQUOTE]"

definition mozjs_small_run_14585 :: "nat list" where
  "mozjs_small_run_14585 =
    [5, 1639, 1, mozjs_anon_sym_EQ, 5, 2, mozjs_sym_html_comment, mozjs_sym_comment, 1636, 4,
      mozjs_anon_sym_COMMA, mozjs_anon_sym_RBRACE, mozjs_anon_sym_RPAREN, mozjs_anon_sym_RBRACK,
      1632, 12, mozjs_anon_sym_STAR, mozjs_anon_sym_in, mozjs_anon_sym_LT, mozjs_anon_sym_GT,
      mozjs_anon_sym_GT_GT, mozjs_anon_sym_AMP, mozjs_anon_sym_PIPE, mozjs_anon_sym_PLUS,
      mozjs_anon_sym_DASH, mozjs_anon_sym_SLASH, mozjs_anon_sym_EQ_EQ, mozjs_anon_sym_BANG_EQ,
      1634, 24, mozjs_sym__ternary_qmark, mozjs_anon_sym_LBRACE, mozjs_anon_sym_of,
      mozjs_anon_sym_LPAREN, mozjs_anon_sym_COLON, mozjs_anon_sym_LBRACK, mozjs_anon_sym_DOT,
      mozjs_sym_optional_chain, mozjs_anon_sym_AMP_AMP, mozjs_anon_sym_PIPE_PIPE,
      mozjs_anon_sym_GT_GT_GT, mozjs_anon_sym_LT_LT, mozjs_anon_sym_CARET,
      mozjs_anon_sym_PERCENT, mozjs_anon_sym_STAR_STAR, mozjs_anon_sym_LT_EQ,
      mozjs_anon_sym_EQ_EQ_EQ, mozjs_anon_sym_BANG_EQ_EQ, mozjs_anon_sym_GT_EQ,
      mozjs_anon_sym_QMARK_QMARK, mozjs_anon_sym_instanceof, mozjs_anon_sym_PLUS_PLUS,
      mozjs_anon_sym_DASH_DASH, mozjs_anon_sym_BQUOTE]"

definition mozjs_small_run_14639 :: "nat list" where
  "mozjs_small_run_14639 =
    [3, 5, 2, mozjs_sym_html_comment, mozjs_sym_comment, 1641, 12, mozjs_anon_sym_STAR,
      mozjs_anon_sym_in, mozjs_anon_sym_LT, mozjs_anon_sym_GT, mozjs_anon_sym_GT_GT,
      mozjs_anon_sym_AMP, mozjs_anon_sym_PIPE, mozjs_anon_sym_PLUS, mozjs_anon_sym_DASH,
      mozjs_anon_sym_SLASH, mozjs_anon_sym_EQ_EQ, mozjs_anon_sym_BANG_EQ, 1643, 29,
      mozjs_sym__ternary_qmark, mozjs_anon_sym_LBRACE, mozjs_anon_sym_COMMA,
      mozjs_anon_sym_RBRACE, mozjs_anon_sym_of, mozjs_anon_sym_LPAREN, mozjs_anon_sym_SEMI,
      mozjs_anon_sym_RPAREN, mozjs_anon_sym_COLON, mozjs_anon_sym_LBRACK, mozjs_anon_sym_RBRACK,
      mozjs_anon_sym_DOT, mozjs_sym_optional_chain, mozjs_anon_sym_AMP_AMP,
      mozjs_anon_sym_PIPE_PIPE, mozjs_anon_sym_GT_GT_GT, mozjs_anon_sym_LT_LT,
      mozjs_anon_sym_CARET, mozjs_anon_sym_PERCENT, mozjs_anon_sym_STAR_STAR,
      mozjs_anon_sym_LT_EQ, mozjs_anon_sym_EQ_EQ_EQ, mozjs_anon_sym_BANG_EQ_EQ,
      mozjs_anon_sym_GT_EQ, mozjs_anon_sym_QMARK_QMARK, mozjs_anon_sym_instanceof,
      mozjs_anon_sym_PLUS_PLUS, mozjs_anon_sym_DASH_DASH, mozjs_anon_sym_BQUOTE]"

definition mozjs_small_run_14689 :: "nat list" where
  "mozjs_small_run_14689 =
    [3, 5, 2, mozjs_sym_html_comment, mozjs_sym_comment, 1645, 12, mozjs_anon_sym_STAR,
      mozjs_anon_sym_in, mozjs_anon_sym_LT, mozjs_anon_sym_GT, mozjs_anon_sym_GT_GT,
      mozjs_anon_sym_AMP, mozjs_anon_sym_PIPE, mozjs_anon_sym_PLUS, mozjs_anon_sym_DASH,
      mozjs_anon_sym_SLASH, mozjs_anon_sym_EQ_EQ, mozjs_anon_sym_BANG_EQ, 1647, 29,
      mozjs_sym__ternary_qmark, mozjs_anon_sym_LBRACE, mozjs_anon_sym_COMMA,
      mozjs_anon_sym_RBRACE, mozjs_anon_sym_of, mozjs_anon_sym_LPAREN, mozjs_anon_sym_SEMI,
      mozjs_anon_sym_RPAREN, mozjs_anon_sym_COLON, mozjs_anon_sym_LBRACK, mozjs_anon_sym_RBRACK,
      mozjs_anon_sym_DOT, mozjs_sym_optional_chain, mozjs_anon_sym_AMP_AMP,
      mozjs_anon_sym_PIPE_PIPE, mozjs_anon_sym_GT_GT_GT, mozjs_anon_sym_LT_LT,
      mozjs_anon_sym_CARET, mozjs_anon_sym_PERCENT, mozjs_anon_sym_STAR_STAR,
      mozjs_anon_sym_LT_EQ, mozjs_anon_sym_EQ_EQ_EQ, mozjs_anon_sym_BANG_EQ_EQ,
      mozjs_anon_sym_GT_EQ, mozjs_anon_sym_QMARK_QMARK, mozjs_anon_sym_instanceof,
      mozjs_anon_sym_PLUS_PLUS, mozjs_anon_sym_DASH_DASH, mozjs_anon_sym_BQUOTE]"

definition mozjs_small_run_14739 :: "nat list" where
  "mozjs_small_run_14739 =
    [3, 5, 2, mozjs_sym_html_comment, mozjs_sym_comment, 763, 12, mozjs_anon_sym_STAR,
      mozjs_anon_sym_in, mozjs_anon_sym_LT, mozjs_anon_sym_GT, mozjs_anon_sym_GT_GT,
      mozjs_anon_sym_AMP, mozjs_anon_sym_PIPE, mozjs_anon_sym_PLUS, mozjs_anon_sym_DASH,
      mozjs_anon_sym_SLASH, mozjs_anon_sym_EQ_EQ, mozjs_anon_sym_BANG_EQ, 765, 29,
      mozjs_sym__ternary_qmark, mozjs_anon_sym_LBRACE, mozjs_anon_sym_COMMA,
      mozjs_anon_sym_RBRACE, mozjs_anon_sym_of, mozjs_anon_sym_LPAREN, mozjs_anon_sym_SEMI,
      mozjs_anon_sym_RPAREN, mozjs_anon_sym_COLON, mozjs_anon_sym_LBRACK, mozjs_anon_sym_RBRACK,
      mozjs_anon_sym_DOT, mozjs_sym_optional_chain, mozjs_anon_sym_AMP_AMP,
      mozjs_anon_sym_PIPE_PIPE, mozjs_anon_sym_GT_GT_GT, mozjs_anon_sym_LT_LT,
      mozjs_anon_sym_CARET, mozjs_anon_sym_PERCENT, mozjs_anon_sym_STAR_STAR,
      mozjs_anon_sym_LT_EQ, mozjs_anon_sym_EQ_EQ_EQ, mozjs_anon_sym_BANG_EQ_EQ,
      mozjs_anon_sym_GT_EQ, mozjs_anon_sym_QMARK_QMARK, mozjs_anon_sym_instanceof,
      mozjs_anon_sym_PLUS_PLUS, mozjs_anon_sym_DASH_DASH, mozjs_anon_sym_BQUOTE]"

definition mozjs_small_run_14789 :: "nat list" where
  "mozjs_small_run_14789 =
    [3, 5, 2, mozjs_sym_html_comment, mozjs_sym_comment, 773, 12, mozjs_anon_sym_STAR,
      mozjs_anon_sym_in, mozjs_anon_sym_LT, mozjs_anon_sym_GT, mozjs_anon_sym_GT_GT,
      mozjs_anon_sym_AMP, mozjs_anon_sym_PIPE, mozjs_anon_sym_PLUS, mozjs_anon_sym_DASH,
      mozjs_anon_sym_SLASH, mozjs_anon_sym_EQ_EQ, mozjs_anon_sym_BANG_EQ, 775, 29,
      mozjs_sym__ternary_qmark, mozjs_anon_sym_LBRACE, mozjs_anon_sym_COMMA,
      mozjs_anon_sym_RBRACE, mozjs_anon_sym_of, mozjs_anon_sym_LPAREN, mozjs_anon_sym_SEMI,
      mozjs_anon_sym_RPAREN, mozjs_anon_sym_COLON, mozjs_anon_sym_LBRACK, mozjs_anon_sym_RBRACK,
      mozjs_anon_sym_DOT, mozjs_sym_optional_chain, mozjs_anon_sym_AMP_AMP,
      mozjs_anon_sym_PIPE_PIPE, mozjs_anon_sym_GT_GT_GT, mozjs_anon_sym_LT_LT,
      mozjs_anon_sym_CARET, mozjs_anon_sym_PERCENT, mozjs_anon_sym_STAR_STAR,
      mozjs_anon_sym_LT_EQ, mozjs_anon_sym_EQ_EQ_EQ, mozjs_anon_sym_BANG_EQ_EQ,
      mozjs_anon_sym_GT_EQ, mozjs_anon_sym_QMARK_QMARK, mozjs_anon_sym_instanceof,
      mozjs_anon_sym_PLUS_PLUS, mozjs_anon_sym_DASH_DASH, mozjs_anon_sym_BQUOTE]"

definition mozjs_small_run_14839 :: "nat list" where
  "mozjs_small_run_14839 =
    [3, 5, 2, mozjs_sym_html_comment, mozjs_sym_comment, 783, 12, mozjs_anon_sym_STAR,
      mozjs_anon_sym_in, mozjs_anon_sym_LT, mozjs_anon_sym_GT, mozjs_anon_sym_GT_GT,
      mozjs_anon_sym_AMP, mozjs_anon_sym_PIPE, mozjs_anon_sym_PLUS, mozjs_anon_sym_DASH,
      mozjs_anon_sym_SLASH, mozjs_anon_sym_EQ_EQ, mozjs_anon_sym_BANG_EQ, 785, 29,
      mozjs_sym__ternary_qmark, mozjs_anon_sym_LBRACE, mozjs_anon_sym_COMMA,
      mozjs_anon_sym_RBRACE, mozjs_anon_sym_of, mozjs_anon_sym_LPAREN, mozjs_anon_sym_SEMI,
      mozjs_anon_sym_RPAREN, mozjs_anon_sym_COLON, mozjs_anon_sym_LBRACK, mozjs_anon_sym_RBRACK,
      mozjs_anon_sym_DOT, mozjs_sym_optional_chain, mozjs_anon_sym_AMP_AMP,
      mozjs_anon_sym_PIPE_PIPE, mozjs_anon_sym_GT_GT_GT, mozjs_anon_sym_LT_LT,
      mozjs_anon_sym_CARET, mozjs_anon_sym_PERCENT, mozjs_anon_sym_STAR_STAR,
      mozjs_anon_sym_LT_EQ, mozjs_anon_sym_EQ_EQ_EQ, mozjs_anon_sym_BANG_EQ_EQ,
      mozjs_anon_sym_GT_EQ, mozjs_anon_sym_QMARK_QMARK, mozjs_anon_sym_instanceof,
      mozjs_anon_sym_PLUS_PLUS, mozjs_anon_sym_DASH_DASH, mozjs_anon_sym_BQUOTE]"

definition mozjs_small_run_14889 :: "nat list" where
  "mozjs_small_run_14889 =
    [3, 5, 2, mozjs_sym_html_comment, mozjs_sym_comment, 1649, 12, mozjs_anon_sym_STAR,
      mozjs_anon_sym_in, mozjs_anon_sym_LT, mozjs_anon_sym_GT, mozjs_anon_sym_GT_GT,
      mozjs_anon_sym_AMP, mozjs_anon_sym_PIPE, mozjs_anon_sym_PLUS, mozjs_anon_sym_DASH,
      mozjs_anon_sym_SLASH, mozjs_anon_sym_EQ_EQ, mozjs_anon_sym_BANG_EQ, 1651, 29,
      mozjs_sym__ternary_qmark, mozjs_anon_sym_LBRACE, mozjs_anon_sym_COMMA,
      mozjs_anon_sym_RBRACE, mozjs_anon_sym_of, mozjs_anon_sym_LPAREN, mozjs_anon_sym_SEMI,
      mozjs_anon_sym_RPAREN, mozjs_anon_sym_COLON, mozjs_anon_sym_LBRACK, mozjs_anon_sym_RBRACK,
      mozjs_anon_sym_DOT, mozjs_sym_optional_chain, mozjs_anon_sym_AMP_AMP,
      mozjs_anon_sym_PIPE_PIPE, mozjs_anon_sym_GT_GT_GT, mozjs_anon_sym_LT_LT,
      mozjs_anon_sym_CARET, mozjs_anon_sym_PERCENT, mozjs_anon_sym_STAR_STAR,
      mozjs_anon_sym_LT_EQ, mozjs_anon_sym_EQ_EQ_EQ, mozjs_anon_sym_BANG_EQ_EQ,
      mozjs_anon_sym_GT_EQ, mozjs_anon_sym_QMARK_QMARK, mozjs_anon_sym_instanceof,
      mozjs_anon_sym_PLUS_PLUS, mozjs_anon_sym_DASH_DASH, mozjs_anon_sym_BQUOTE]"

definition mozjs_small_run_14939 :: "nat list" where
  "mozjs_small_run_14939 =
    [3, 5, 2, mozjs_sym_html_comment, mozjs_sym_comment, 1653, 12, mozjs_anon_sym_STAR,
      mozjs_anon_sym_in, mozjs_anon_sym_LT, mozjs_anon_sym_GT, mozjs_anon_sym_GT_GT,
      mozjs_anon_sym_AMP, mozjs_anon_sym_PIPE, mozjs_anon_sym_PLUS, mozjs_anon_sym_DASH,
      mozjs_anon_sym_SLASH, mozjs_anon_sym_EQ_EQ, mozjs_anon_sym_BANG_EQ, 1655, 29,
      mozjs_sym__ternary_qmark, mozjs_anon_sym_LBRACE, mozjs_anon_sym_COMMA,
      mozjs_anon_sym_RBRACE, mozjs_anon_sym_of, mozjs_anon_sym_LPAREN, mozjs_anon_sym_SEMI,
      mozjs_anon_sym_RPAREN, mozjs_anon_sym_COLON, mozjs_anon_sym_LBRACK, mozjs_anon_sym_RBRACK,
      mozjs_anon_sym_DOT, mozjs_sym_optional_chain, mozjs_anon_sym_AMP_AMP,
      mozjs_anon_sym_PIPE_PIPE, mozjs_anon_sym_GT_GT_GT, mozjs_anon_sym_LT_LT,
      mozjs_anon_sym_CARET, mozjs_anon_sym_PERCENT, mozjs_anon_sym_STAR_STAR,
      mozjs_anon_sym_LT_EQ, mozjs_anon_sym_EQ_EQ_EQ, mozjs_anon_sym_BANG_EQ_EQ,
      mozjs_anon_sym_GT_EQ, mozjs_anon_sym_QMARK_QMARK, mozjs_anon_sym_instanceof,
      mozjs_anon_sym_PLUS_PLUS, mozjs_anon_sym_DASH_DASH, mozjs_anon_sym_BQUOTE]"

definition mozjs_small_run_14989 :: "nat list" where
  "mozjs_small_run_14989 =
    [3, 5, 2, mozjs_sym_html_comment, mozjs_sym_comment, 1657, 12, mozjs_anon_sym_STAR,
      mozjs_anon_sym_in, mozjs_anon_sym_LT, mozjs_anon_sym_GT, mozjs_anon_sym_GT_GT,
      mozjs_anon_sym_AMP, mozjs_anon_sym_PIPE, mozjs_anon_sym_PLUS, mozjs_anon_sym_DASH,
      mozjs_anon_sym_SLASH, mozjs_anon_sym_EQ_EQ, mozjs_anon_sym_BANG_EQ, 1659, 29,
      mozjs_sym__ternary_qmark, mozjs_anon_sym_LBRACE, mozjs_anon_sym_COMMA,
      mozjs_anon_sym_RBRACE, mozjs_anon_sym_of, mozjs_anon_sym_LPAREN, mozjs_anon_sym_SEMI,
      mozjs_anon_sym_RPAREN, mozjs_anon_sym_COLON, mozjs_anon_sym_LBRACK, mozjs_anon_sym_RBRACK,
      mozjs_anon_sym_DOT, mozjs_sym_optional_chain, mozjs_anon_sym_AMP_AMP,
      mozjs_anon_sym_PIPE_PIPE, mozjs_anon_sym_GT_GT_GT, mozjs_anon_sym_LT_LT,
      mozjs_anon_sym_CARET, mozjs_anon_sym_PERCENT, mozjs_anon_sym_STAR_STAR,
      mozjs_anon_sym_LT_EQ, mozjs_anon_sym_EQ_EQ_EQ, mozjs_anon_sym_BANG_EQ_EQ,
      mozjs_anon_sym_GT_EQ, mozjs_anon_sym_QMARK_QMARK, mozjs_anon_sym_instanceof,
      mozjs_anon_sym_PLUS_PLUS, mozjs_anon_sym_DASH_DASH, mozjs_anon_sym_BQUOTE]"

definition mozjs_small_run_15039 :: "nat list" where
  "mozjs_small_run_15039 =
    [3, 5, 2, mozjs_sym_html_comment, mozjs_sym_comment, 1661, 12, mozjs_anon_sym_STAR,
      mozjs_anon_sym_in, mozjs_anon_sym_LT, mozjs_anon_sym_GT, mozjs_anon_sym_GT_GT,
      mozjs_anon_sym_AMP, mozjs_anon_sym_PIPE, mozjs_anon_sym_PLUS, mozjs_anon_sym_DASH,
      mozjs_anon_sym_SLASH, mozjs_anon_sym_EQ_EQ, mozjs_anon_sym_BANG_EQ, 1663, 29,
      mozjs_sym__ternary_qmark, mozjs_anon_sym_LBRACE, mozjs_anon_sym_COMMA,
      mozjs_anon_sym_RBRACE, mozjs_anon_sym_of, mozjs_anon_sym_LPAREN, mozjs_anon_sym_SEMI,
      mozjs_anon_sym_RPAREN, mozjs_anon_sym_COLON, mozjs_anon_sym_LBRACK, mozjs_anon_sym_RBRACK,
      mozjs_anon_sym_DOT, mozjs_sym_optional_chain, mozjs_anon_sym_AMP_AMP,
      mozjs_anon_sym_PIPE_PIPE, mozjs_anon_sym_GT_GT_GT, mozjs_anon_sym_LT_LT,
      mozjs_anon_sym_CARET, mozjs_anon_sym_PERCENT, mozjs_anon_sym_STAR_STAR,
      mozjs_anon_sym_LT_EQ, mozjs_anon_sym_EQ_EQ_EQ, mozjs_anon_sym_BANG_EQ_EQ,
      mozjs_anon_sym_GT_EQ, mozjs_anon_sym_QMARK_QMARK, mozjs_anon_sym_instanceof,
      mozjs_anon_sym_PLUS_PLUS, mozjs_anon_sym_DASH_DASH, mozjs_anon_sym_BQUOTE]"

definition mozjs_small_run_15089 :: "nat list" where
  "mozjs_small_run_15089 =
    [3, 5, 2, mozjs_sym_html_comment, mozjs_sym_comment, 1665, 12, mozjs_anon_sym_STAR,
      mozjs_anon_sym_in, mozjs_anon_sym_LT, mozjs_anon_sym_GT, mozjs_anon_sym_GT_GT,
      mozjs_anon_sym_AMP, mozjs_anon_sym_PIPE, mozjs_anon_sym_PLUS, mozjs_anon_sym_DASH,
      mozjs_anon_sym_SLASH, mozjs_anon_sym_EQ_EQ, mozjs_anon_sym_BANG_EQ, 1667, 29,
      mozjs_sym__ternary_qmark, mozjs_anon_sym_LBRACE, mozjs_anon_sym_COMMA,
      mozjs_anon_sym_RBRACE, mozjs_anon_sym_of, mozjs_anon_sym_LPAREN, mozjs_anon_sym_SEMI,
      mozjs_anon_sym_RPAREN, mozjs_anon_sym_COLON, mozjs_anon_sym_LBRACK, mozjs_anon_sym_RBRACK,
      mozjs_anon_sym_DOT, mozjs_sym_optional_chain, mozjs_anon_sym_AMP_AMP,
      mozjs_anon_sym_PIPE_PIPE, mozjs_anon_sym_GT_GT_GT, mozjs_anon_sym_LT_LT,
      mozjs_anon_sym_CARET, mozjs_anon_sym_PERCENT, mozjs_anon_sym_STAR_STAR,
      mozjs_anon_sym_LT_EQ, mozjs_anon_sym_EQ_EQ_EQ, mozjs_anon_sym_BANG_EQ_EQ,
      mozjs_anon_sym_GT_EQ, mozjs_anon_sym_QMARK_QMARK, mozjs_anon_sym_instanceof,
      mozjs_anon_sym_PLUS_PLUS, mozjs_anon_sym_DASH_DASH, mozjs_anon_sym_BQUOTE]"

definition mozjs_small_run_15139 :: "nat list" where
  "mozjs_small_run_15139 =
    [5, 725, 1, mozjs_anon_sym_EQ, 5, 2, mozjs_sym_html_comment, mozjs_sym_comment, 1669, 4,
      mozjs_anon_sym_COMMA, mozjs_anon_sym_RBRACE, mozjs_anon_sym_RPAREN, mozjs_anon_sym_RBRACK,
      721, 12, mozjs_anon_sym_STAR, mozjs_anon_sym_in, mozjs_anon_sym_LT, mozjs_anon_sym_GT,
      mozjs_anon_sym_GT_GT, mozjs_anon_sym_AMP, mozjs_anon_sym_PIPE, mozjs_anon_sym_PLUS,
      mozjs_anon_sym_DASH, mozjs_anon_sym_SLASH, mozjs_anon_sym_EQ_EQ, mozjs_anon_sym_BANG_EQ,
      723, 24, mozjs_sym__ternary_qmark, mozjs_anon_sym_LBRACE, mozjs_anon_sym_of,
      mozjs_anon_sym_LPAREN, mozjs_anon_sym_COLON, mozjs_anon_sym_LBRACK, mozjs_anon_sym_DOT,
      mozjs_sym_optional_chain, mozjs_anon_sym_AMP_AMP, mozjs_anon_sym_PIPE_PIPE,
      mozjs_anon_sym_GT_GT_GT, mozjs_anon_sym_LT_LT, mozjs_anon_sym_CARET,
      mozjs_anon_sym_PERCENT, mozjs_anon_sym_STAR_STAR, mozjs_anon_sym_LT_EQ,
      mozjs_anon_sym_EQ_EQ_EQ, mozjs_anon_sym_BANG_EQ_EQ, mozjs_anon_sym_GT_EQ,
      mozjs_anon_sym_QMARK_QMARK, mozjs_anon_sym_instanceof, mozjs_anon_sym_PLUS_PLUS,
      mozjs_anon_sym_DASH_DASH, mozjs_anon_sym_BQUOTE]"

definition mozjs_small_run_15193 :: "nat list" where
  "mozjs_small_run_15193 =
    [3, 5, 2, mozjs_sym_html_comment, mozjs_sym_comment, 793, 12, mozjs_anon_sym_STAR,
      mozjs_anon_sym_in, mozjs_anon_sym_LT, mozjs_anon_sym_GT, mozjs_anon_sym_GT_GT,
      mozjs_anon_sym_AMP, mozjs_anon_sym_PIPE, mozjs_anon_sym_PLUS, mozjs_anon_sym_DASH,
      mozjs_anon_sym_SLASH, mozjs_anon_sym_EQ_EQ, mozjs_anon_sym_BANG_EQ, 795, 29,
      mozjs_sym__ternary_qmark, mozjs_anon_sym_LBRACE, mozjs_anon_sym_COMMA,
      mozjs_anon_sym_RBRACE, mozjs_anon_sym_of, mozjs_anon_sym_LPAREN, mozjs_anon_sym_SEMI,
      mozjs_anon_sym_RPAREN, mozjs_anon_sym_COLON, mozjs_anon_sym_LBRACK, mozjs_anon_sym_RBRACK,
      mozjs_anon_sym_DOT, mozjs_sym_optional_chain, mozjs_anon_sym_AMP_AMP,
      mozjs_anon_sym_PIPE_PIPE, mozjs_anon_sym_GT_GT_GT, mozjs_anon_sym_LT_LT,
      mozjs_anon_sym_CARET, mozjs_anon_sym_PERCENT, mozjs_anon_sym_STAR_STAR,
      mozjs_anon_sym_LT_EQ, mozjs_anon_sym_EQ_EQ_EQ, mozjs_anon_sym_BANG_EQ_EQ,
      mozjs_anon_sym_GT_EQ, mozjs_anon_sym_QMARK_QMARK, mozjs_anon_sym_instanceof,
      mozjs_anon_sym_PLUS_PLUS, mozjs_anon_sym_DASH_DASH, mozjs_anon_sym_BQUOTE]"

definition mozjs_small_run_15243 :: "nat list" where
  "mozjs_small_run_15243 =
    [3, 5, 2, mozjs_sym_html_comment, mozjs_sym_comment, 803, 12, mozjs_anon_sym_STAR,
      mozjs_anon_sym_in, mozjs_anon_sym_LT, mozjs_anon_sym_GT, mozjs_anon_sym_GT_GT,
      mozjs_anon_sym_AMP, mozjs_anon_sym_PIPE, mozjs_anon_sym_PLUS, mozjs_anon_sym_DASH,
      mozjs_anon_sym_SLASH, mozjs_anon_sym_EQ_EQ, mozjs_anon_sym_BANG_EQ, 805, 29,
      mozjs_sym__ternary_qmark, mozjs_anon_sym_LBRACE, mozjs_anon_sym_COMMA,
      mozjs_anon_sym_RBRACE, mozjs_anon_sym_of, mozjs_anon_sym_LPAREN, mozjs_anon_sym_SEMI,
      mozjs_anon_sym_RPAREN, mozjs_anon_sym_COLON, mozjs_anon_sym_LBRACK, mozjs_anon_sym_RBRACK,
      mozjs_anon_sym_DOT, mozjs_sym_optional_chain, mozjs_anon_sym_AMP_AMP,
      mozjs_anon_sym_PIPE_PIPE, mozjs_anon_sym_GT_GT_GT, mozjs_anon_sym_LT_LT,
      mozjs_anon_sym_CARET, mozjs_anon_sym_PERCENT, mozjs_anon_sym_STAR_STAR,
      mozjs_anon_sym_LT_EQ, mozjs_anon_sym_EQ_EQ_EQ, mozjs_anon_sym_BANG_EQ_EQ,
      mozjs_anon_sym_GT_EQ, mozjs_anon_sym_QMARK_QMARK, mozjs_anon_sym_instanceof,
      mozjs_anon_sym_PLUS_PLUS, mozjs_anon_sym_DASH_DASH, mozjs_anon_sym_BQUOTE]"

definition mozjs_small_run_15293 :: "nat list" where
  "mozjs_small_run_15293 =
    [3, 5, 2, mozjs_sym_html_comment, mozjs_sym_comment, 1672, 12, mozjs_anon_sym_STAR,
      mozjs_anon_sym_in, mozjs_anon_sym_LT, mozjs_anon_sym_GT, mozjs_anon_sym_GT_GT,
      mozjs_anon_sym_AMP, mozjs_anon_sym_PIPE, mozjs_anon_sym_PLUS, mozjs_anon_sym_DASH,
      mozjs_anon_sym_SLASH, mozjs_anon_sym_EQ_EQ, mozjs_anon_sym_BANG_EQ, 1674, 29,
      mozjs_sym__ternary_qmark, mozjs_anon_sym_LBRACE, mozjs_anon_sym_COMMA,
      mozjs_anon_sym_RBRACE, mozjs_anon_sym_of, mozjs_anon_sym_LPAREN, mozjs_anon_sym_SEMI,
      mozjs_anon_sym_RPAREN, mozjs_anon_sym_COLON, mozjs_anon_sym_LBRACK, mozjs_anon_sym_RBRACK,
      mozjs_anon_sym_DOT, mozjs_sym_optional_chain, mozjs_anon_sym_AMP_AMP,
      mozjs_anon_sym_PIPE_PIPE, mozjs_anon_sym_GT_GT_GT, mozjs_anon_sym_LT_LT,
      mozjs_anon_sym_CARET, mozjs_anon_sym_PERCENT, mozjs_anon_sym_STAR_STAR,
      mozjs_anon_sym_LT_EQ, mozjs_anon_sym_EQ_EQ_EQ, mozjs_anon_sym_BANG_EQ_EQ,
      mozjs_anon_sym_GT_EQ, mozjs_anon_sym_QMARK_QMARK, mozjs_anon_sym_instanceof,
      mozjs_anon_sym_PLUS_PLUS, mozjs_anon_sym_DASH_DASH, mozjs_anon_sym_BQUOTE]"

definition mozjs_small_run_15343 :: "nat list" where
  "mozjs_small_run_15343 =
    [3, 5, 2, mozjs_sym_html_comment, mozjs_sym_comment, 1676, 12, mozjs_anon_sym_STAR,
      mozjs_anon_sym_in, mozjs_anon_sym_LT, mozjs_anon_sym_GT, mozjs_anon_sym_GT_GT,
      mozjs_anon_sym_AMP, mozjs_anon_sym_PIPE, mozjs_anon_sym_PLUS, mozjs_anon_sym_DASH,
      mozjs_anon_sym_SLASH, mozjs_anon_sym_EQ_EQ, mozjs_anon_sym_BANG_EQ, 1678, 29,
      mozjs_sym__ternary_qmark, mozjs_anon_sym_LBRACE, mozjs_anon_sym_COMMA,
      mozjs_anon_sym_RBRACE, mozjs_anon_sym_of, mozjs_anon_sym_LPAREN, mozjs_anon_sym_SEMI,
      mozjs_anon_sym_RPAREN, mozjs_anon_sym_COLON, mozjs_anon_sym_LBRACK, mozjs_anon_sym_RBRACK,
      mozjs_anon_sym_DOT, mozjs_sym_optional_chain, mozjs_anon_sym_AMP_AMP,
      mozjs_anon_sym_PIPE_PIPE, mozjs_anon_sym_GT_GT_GT, mozjs_anon_sym_LT_LT,
      mozjs_anon_sym_CARET, mozjs_anon_sym_PERCENT, mozjs_anon_sym_STAR_STAR,
      mozjs_anon_sym_LT_EQ, mozjs_anon_sym_EQ_EQ_EQ, mozjs_anon_sym_BANG_EQ_EQ,
      mozjs_anon_sym_GT_EQ, mozjs_anon_sym_QMARK_QMARK, mozjs_anon_sym_instanceof,
      mozjs_anon_sym_PLUS_PLUS, mozjs_anon_sym_DASH_DASH, mozjs_anon_sym_BQUOTE]"

definition mozjs_small_run_15393 :: "nat list" where
  "mozjs_small_run_15393 =
    [3, 5, 2, mozjs_sym_html_comment, mozjs_sym_comment, 719, 12, mozjs_anon_sym_STAR,
      mozjs_anon_sym_in, mozjs_anon_sym_LT, mozjs_anon_sym_GT, mozjs_anon_sym_GT_GT,
      mozjs_anon_sym_AMP, mozjs_anon_sym_PIPE, mozjs_anon_sym_PLUS, mozjs_anon_sym_DASH,
      mozjs_anon_sym_SLASH, mozjs_anon_sym_EQ_EQ, mozjs_anon_sym_BANG_EQ, 717, 29,
      mozjs_sym__ternary_qmark, mozjs_anon_sym_LBRACE, mozjs_anon_sym_COMMA,
      mozjs_anon_sym_RBRACE, mozjs_anon_sym_of, mozjs_anon_sym_LPAREN, mozjs_anon_sym_SEMI,
      mozjs_anon_sym_RPAREN, mozjs_anon_sym_COLON, mozjs_anon_sym_LBRACK, mozjs_anon_sym_RBRACK,
      mozjs_anon_sym_DOT, mozjs_sym_optional_chain, mozjs_anon_sym_AMP_AMP,
      mozjs_anon_sym_PIPE_PIPE, mozjs_anon_sym_GT_GT_GT, mozjs_anon_sym_LT_LT,
      mozjs_anon_sym_CARET, mozjs_anon_sym_PERCENT, mozjs_anon_sym_STAR_STAR,
      mozjs_anon_sym_LT_EQ, mozjs_anon_sym_EQ_EQ_EQ, mozjs_anon_sym_BANG_EQ_EQ,
      mozjs_anon_sym_GT_EQ, mozjs_anon_sym_QMARK_QMARK, mozjs_anon_sym_instanceof,
      mozjs_anon_sym_PLUS_PLUS, mozjs_anon_sym_DASH_DASH, mozjs_anon_sym_BQUOTE]"

definition mozjs_small_run_15443 :: "nat list" where
  "mozjs_small_run_15443 =
    [3, 5, 2, mozjs_sym_html_comment, mozjs_sym_comment, 1680, 12, mozjs_anon_sym_STAR,
      mozjs_anon_sym_in, mozjs_anon_sym_LT, mozjs_anon_sym_GT, mozjs_anon_sym_GT_GT,
      mozjs_anon_sym_AMP, mozjs_anon_sym_PIPE, mozjs_anon_sym_PLUS, mozjs_anon_sym_DASH,
      mozjs_anon_sym_SLASH, mozjs_anon_sym_EQ_EQ, mozjs_anon_sym_BANG_EQ, 1682, 29,
      mozjs_sym__ternary_qmark, mozjs_anon_sym_LBRACE, mozjs_anon_sym_COMMA,
      mozjs_anon_sym_RBRACE, mozjs_anon_sym_of, mozjs_anon_sym_LPAREN, mozjs_anon_sym_SEMI,
      mozjs_anon_sym_RPAREN, mozjs_anon_sym_COLON, mozjs_anon_sym_LBRACK, mozjs_anon_sym_RBRACK,
      mozjs_anon_sym_DOT, mozjs_sym_optional_chain, mozjs_anon_sym_AMP_AMP,
      mozjs_anon_sym_PIPE_PIPE, mozjs_anon_sym_GT_GT_GT, mozjs_anon_sym_LT_LT,
      mozjs_anon_sym_CARET, mozjs_anon_sym_PERCENT, mozjs_anon_sym_STAR_STAR,
      mozjs_anon_sym_LT_EQ, mozjs_anon_sym_EQ_EQ_EQ, mozjs_anon_sym_BANG_EQ_EQ,
      mozjs_anon_sym_GT_EQ, mozjs_anon_sym_QMARK_QMARK, mozjs_anon_sym_instanceof,
      mozjs_anon_sym_PLUS_PLUS, mozjs_anon_sym_DASH_DASH, mozjs_anon_sym_BQUOTE]"

definition mozjs_small_run_15493 :: "nat list" where
  "mozjs_small_run_15493 =
    [3, 5, 2, mozjs_sym_html_comment, mozjs_sym_comment, 733, 12, mozjs_anon_sym_STAR,
      mozjs_anon_sym_in, mozjs_anon_sym_LT, mozjs_anon_sym_GT, mozjs_anon_sym_GT_GT,
      mozjs_anon_sym_AMP, mozjs_anon_sym_PIPE, mozjs_anon_sym_PLUS, mozjs_anon_sym_DASH,
      mozjs_anon_sym_SLASH, mozjs_anon_sym_EQ_EQ, mozjs_anon_sym_BANG_EQ, 735, 29,
      mozjs_sym__ternary_qmark, mozjs_anon_sym_LBRACE, mozjs_anon_sym_COMMA,
      mozjs_anon_sym_RBRACE, mozjs_anon_sym_of, mozjs_anon_sym_LPAREN, mozjs_anon_sym_SEMI,
      mozjs_anon_sym_RPAREN, mozjs_anon_sym_COLON, mozjs_anon_sym_LBRACK, mozjs_anon_sym_RBRACK,
      mozjs_anon_sym_DOT, mozjs_sym_optional_chain, mozjs_anon_sym_AMP_AMP,
      mozjs_anon_sym_PIPE_PIPE, mozjs_anon_sym_GT_GT_GT, mozjs_anon_sym_LT_LT,
      mozjs_anon_sym_CARET, mozjs_anon_sym_PERCENT, mozjs_anon_sym_STAR_STAR,
      mozjs_anon_sym_LT_EQ, mozjs_anon_sym_EQ_EQ_EQ, mozjs_anon_sym_BANG_EQ_EQ,
      mozjs_anon_sym_GT_EQ, mozjs_anon_sym_QMARK_QMARK, mozjs_anon_sym_instanceof,
      mozjs_anon_sym_PLUS_PLUS, mozjs_anon_sym_DASH_DASH, mozjs_anon_sym_BQUOTE]"

definition mozjs_small_run_15543 :: "nat list" where
  "mozjs_small_run_15543 =
    [3, 5, 2, mozjs_sym_html_comment, mozjs_sym_comment, 753, 12, mozjs_anon_sym_STAR,
      mozjs_anon_sym_in, mozjs_anon_sym_LT, mozjs_anon_sym_GT, mozjs_anon_sym_GT_GT,
      mozjs_anon_sym_AMP, mozjs_anon_sym_PIPE, mozjs_anon_sym_PLUS, mozjs_anon_sym_DASH,
      mozjs_anon_sym_SLASH, mozjs_anon_sym_EQ_EQ, mozjs_anon_sym_BANG_EQ, 755, 29,
      mozjs_sym__ternary_qmark, mozjs_anon_sym_LBRACE, mozjs_anon_sym_COMMA,
      mozjs_anon_sym_RBRACE, mozjs_anon_sym_of, mozjs_anon_sym_LPAREN, mozjs_anon_sym_SEMI,
      mozjs_anon_sym_RPAREN, mozjs_anon_sym_COLON, mozjs_anon_sym_LBRACK, mozjs_anon_sym_RBRACK,
      mozjs_anon_sym_DOT, mozjs_sym_optional_chain, mozjs_anon_sym_AMP_AMP,
      mozjs_anon_sym_PIPE_PIPE, mozjs_anon_sym_GT_GT_GT, mozjs_anon_sym_LT_LT,
      mozjs_anon_sym_CARET, mozjs_anon_sym_PERCENT, mozjs_anon_sym_STAR_STAR,
      mozjs_anon_sym_LT_EQ, mozjs_anon_sym_EQ_EQ_EQ, mozjs_anon_sym_BANG_EQ_EQ,
      mozjs_anon_sym_GT_EQ, mozjs_anon_sym_QMARK_QMARK, mozjs_anon_sym_instanceof,
      mozjs_anon_sym_PLUS_PLUS, mozjs_anon_sym_DASH_DASH, mozjs_anon_sym_BQUOTE]"

definition mozjs_small_run_15593 :: "nat list" where
  "mozjs_small_run_15593 =
    [3, 5, 2, mozjs_sym_html_comment, mozjs_sym_comment, 1684, 12, mozjs_anon_sym_STAR,
      mozjs_anon_sym_in, mozjs_anon_sym_LT, mozjs_anon_sym_GT, mozjs_anon_sym_GT_GT,
      mozjs_anon_sym_AMP, mozjs_anon_sym_PIPE, mozjs_anon_sym_PLUS, mozjs_anon_sym_DASH,
      mozjs_anon_sym_SLASH, mozjs_anon_sym_EQ_EQ, mozjs_anon_sym_BANG_EQ, 1686, 29,
      mozjs_sym__ternary_qmark, mozjs_anon_sym_LBRACE, mozjs_anon_sym_COMMA,
      mozjs_anon_sym_RBRACE, mozjs_anon_sym_of, mozjs_anon_sym_LPAREN, mozjs_anon_sym_SEMI,
      mozjs_anon_sym_RPAREN, mozjs_anon_sym_COLON, mozjs_anon_sym_LBRACK, mozjs_anon_sym_RBRACK,
      mozjs_anon_sym_DOT, mozjs_sym_optional_chain, mozjs_anon_sym_AMP_AMP,
      mozjs_anon_sym_PIPE_PIPE, mozjs_anon_sym_GT_GT_GT, mozjs_anon_sym_LT_LT,
      mozjs_anon_sym_CARET, mozjs_anon_sym_PERCENT, mozjs_anon_sym_STAR_STAR,
      mozjs_anon_sym_LT_EQ, mozjs_anon_sym_EQ_EQ_EQ, mozjs_anon_sym_BANG_EQ_EQ,
      mozjs_anon_sym_GT_EQ, mozjs_anon_sym_QMARK_QMARK, mozjs_anon_sym_instanceof,
      mozjs_anon_sym_PLUS_PLUS, mozjs_anon_sym_DASH_DASH, mozjs_anon_sym_BQUOTE]"

definition mozjs_small_run_15643 :: "nat list" where
  "mozjs_small_run_15643 =
    [3, 5, 2, mozjs_sym_html_comment, mozjs_sym_comment, 1684, 12, mozjs_anon_sym_STAR,
      mozjs_anon_sym_in, mozjs_anon_sym_LT, mozjs_anon_sym_GT, mozjs_anon_sym_GT_GT,
      mozjs_anon_sym_AMP, mozjs_anon_sym_PIPE, mozjs_anon_sym_PLUS, mozjs_anon_sym_DASH,
      mozjs_anon_sym_SLASH, mozjs_anon_sym_EQ_EQ, mozjs_anon_sym_BANG_EQ, 1686, 29,
      mozjs_sym__ternary_qmark, mozjs_anon_sym_LBRACE, mozjs_anon_sym_COMMA,
      mozjs_anon_sym_RBRACE, mozjs_anon_sym_of, mozjs_anon_sym_LPAREN, mozjs_anon_sym_SEMI,
      mozjs_anon_sym_RPAREN, mozjs_anon_sym_COLON, mozjs_anon_sym_LBRACK, mozjs_anon_sym_RBRACK,
      mozjs_anon_sym_DOT, mozjs_sym_optional_chain, mozjs_anon_sym_AMP_AMP,
      mozjs_anon_sym_PIPE_PIPE, mozjs_anon_sym_GT_GT_GT, mozjs_anon_sym_LT_LT,
      mozjs_anon_sym_CARET, mozjs_anon_sym_PERCENT, mozjs_anon_sym_STAR_STAR,
      mozjs_anon_sym_LT_EQ, mozjs_anon_sym_EQ_EQ_EQ, mozjs_anon_sym_BANG_EQ_EQ,
      mozjs_anon_sym_GT_EQ, mozjs_anon_sym_QMARK_QMARK, mozjs_anon_sym_instanceof,
      mozjs_anon_sym_PLUS_PLUS, mozjs_anon_sym_DASH_DASH, mozjs_anon_sym_BQUOTE]"

definition mozjs_small_run_15693 :: "nat list" where
  "mozjs_small_run_15693 =
    [3, 5, 2, mozjs_sym_html_comment, mozjs_sym_comment, 1688, 12, mozjs_anon_sym_STAR,
      mozjs_anon_sym_in, mozjs_anon_sym_LT, mozjs_anon_sym_GT, mozjs_anon_sym_GT_GT,
      mozjs_anon_sym_AMP, mozjs_anon_sym_PIPE, mozjs_anon_sym_PLUS, mozjs_anon_sym_DASH,
      mozjs_anon_sym_SLASH, mozjs_anon_sym_EQ_EQ, mozjs_anon_sym_BANG_EQ, 1690, 29,
      mozjs_sym__ternary_qmark, mozjs_anon_sym_LBRACE, mozjs_anon_sym_COMMA,
      mozjs_anon_sym_RBRACE, mozjs_anon_sym_of, mozjs_anon_sym_LPAREN, mozjs_anon_sym_SEMI,
      mozjs_anon_sym_RPAREN, mozjs_anon_sym_COLON, mozjs_anon_sym_LBRACK, mozjs_anon_sym_RBRACK,
      mozjs_anon_sym_DOT, mozjs_sym_optional_chain, mozjs_anon_sym_AMP_AMP,
      mozjs_anon_sym_PIPE_PIPE, mozjs_anon_sym_GT_GT_GT, mozjs_anon_sym_LT_LT,
      mozjs_anon_sym_CARET, mozjs_anon_sym_PERCENT, mozjs_anon_sym_STAR_STAR,
      mozjs_anon_sym_LT_EQ, mozjs_anon_sym_EQ_EQ_EQ, mozjs_anon_sym_BANG_EQ_EQ,
      mozjs_anon_sym_GT_EQ, mozjs_anon_sym_QMARK_QMARK, mozjs_anon_sym_instanceof,
      mozjs_anon_sym_PLUS_PLUS, mozjs_anon_sym_DASH_DASH, mozjs_anon_sym_BQUOTE]"

definition mozjs_small_run_15743 :: "nat list" where
  "mozjs_small_run_15743 =
    [3, 5, 2, mozjs_sym_html_comment, mozjs_sym_comment, 1692, 12, mozjs_anon_sym_STAR,
      mozjs_anon_sym_in, mozjs_anon_sym_LT, mozjs_anon_sym_GT, mozjs_anon_sym_GT_GT,
      mozjs_anon_sym_AMP, mozjs_anon_sym_PIPE, mozjs_anon_sym_PLUS, mozjs_anon_sym_DASH,
      mozjs_anon_sym_SLASH, mozjs_anon_sym_EQ_EQ, mozjs_anon_sym_BANG_EQ, 1694, 29,
      mozjs_sym__ternary_qmark, mozjs_anon_sym_LBRACE, mozjs_anon_sym_COMMA,
      mozjs_anon_sym_RBRACE, mozjs_anon_sym_of, mozjs_anon_sym_LPAREN, mozjs_anon_sym_SEMI,
      mozjs_anon_sym_RPAREN, mozjs_anon_sym_COLON, mozjs_anon_sym_LBRACK, mozjs_anon_sym_RBRACK,
      mozjs_anon_sym_DOT, mozjs_sym_optional_chain, mozjs_anon_sym_AMP_AMP,
      mozjs_anon_sym_PIPE_PIPE, mozjs_anon_sym_GT_GT_GT, mozjs_anon_sym_LT_LT,
      mozjs_anon_sym_CARET, mozjs_anon_sym_PERCENT, mozjs_anon_sym_STAR_STAR,
      mozjs_anon_sym_LT_EQ, mozjs_anon_sym_EQ_EQ_EQ, mozjs_anon_sym_BANG_EQ_EQ,
      mozjs_anon_sym_GT_EQ, mozjs_anon_sym_QMARK_QMARK, mozjs_anon_sym_instanceof,
      mozjs_anon_sym_PLUS_PLUS, mozjs_anon_sym_DASH_DASH, mozjs_anon_sym_BQUOTE]"

definition mozjs_small_run_15793 :: "nat list" where
  "mozjs_small_run_15793 =
    [4, 1700, 1, mozjs_sym_regex_flags, 5, 2, mozjs_sym_html_comment, mozjs_sym_comment, 1696,
      13, mozjs_anon_sym_STAR, mozjs_anon_sym_in, mozjs_anon_sym_LT, mozjs_anon_sym_GT,
      mozjs_anon_sym_GT_GT, mozjs_anon_sym_AMP, mozjs_anon_sym_PIPE, mozjs_anon_sym_PLUS,
      mozjs_anon_sym_DASH, mozjs_anon_sym_SLASH, mozjs_anon_sym_EQ_EQ, mozjs_anon_sym_BANG_EQ,
      mozjs_anon_sym_instanceof, 1698, 27, mozjs_sym__ternary_qmark, mozjs_anon_sym_LBRACE,
      mozjs_anon_sym_COMMA, mozjs_anon_sym_RBRACE, mozjs_anon_sym_LPAREN, mozjs_anon_sym_SEMI,
      mozjs_anon_sym_RPAREN, mozjs_anon_sym_COLON, mozjs_anon_sym_LBRACK, mozjs_anon_sym_RBRACK,
      mozjs_anon_sym_DOT, mozjs_sym_optional_chain, mozjs_anon_sym_AMP_AMP,
      mozjs_anon_sym_PIPE_PIPE, mozjs_anon_sym_GT_GT_GT, mozjs_anon_sym_LT_LT,
      mozjs_anon_sym_CARET, mozjs_anon_sym_PERCENT, mozjs_anon_sym_STAR_STAR,
      mozjs_anon_sym_LT_EQ, mozjs_anon_sym_EQ_EQ_EQ, mozjs_anon_sym_BANG_EQ_EQ,
      mozjs_anon_sym_GT_EQ, mozjs_anon_sym_QMARK_QMARK, mozjs_anon_sym_PLUS_PLUS,
      mozjs_anon_sym_DASH_DASH, mozjs_anon_sym_BQUOTE]"

definition mozjs_small_run_15845 :: "nat list" where
  "mozjs_small_run_15845 =
    [3, 5, 2, mozjs_sym_html_comment, mozjs_sym_comment, 1702, 12, mozjs_anon_sym_STAR,
      mozjs_anon_sym_in, mozjs_anon_sym_LT, mozjs_anon_sym_GT, mozjs_anon_sym_GT_GT,
      mozjs_anon_sym_AMP, mozjs_anon_sym_PIPE, mozjs_anon_sym_PLUS, mozjs_anon_sym_DASH,
      mozjs_anon_sym_SLASH, mozjs_anon_sym_EQ_EQ, mozjs_anon_sym_BANG_EQ, 1704, 29,
      mozjs_sym__ternary_qmark, mozjs_anon_sym_LBRACE, mozjs_anon_sym_COMMA,
      mozjs_anon_sym_RBRACE, mozjs_anon_sym_of, mozjs_anon_sym_LPAREN, mozjs_anon_sym_SEMI,
      mozjs_anon_sym_RPAREN, mozjs_anon_sym_COLON, mozjs_anon_sym_LBRACK, mozjs_anon_sym_RBRACK,
      mozjs_anon_sym_DOT, mozjs_sym_optional_chain, mozjs_anon_sym_AMP_AMP,
      mozjs_anon_sym_PIPE_PIPE, mozjs_anon_sym_GT_GT_GT, mozjs_anon_sym_LT_LT,
      mozjs_anon_sym_CARET, mozjs_anon_sym_PERCENT, mozjs_anon_sym_STAR_STAR,
      mozjs_anon_sym_LT_EQ, mozjs_anon_sym_EQ_EQ_EQ, mozjs_anon_sym_BANG_EQ_EQ,
      mozjs_anon_sym_GT_EQ, mozjs_anon_sym_QMARK_QMARK, mozjs_anon_sym_instanceof,
      mozjs_anon_sym_PLUS_PLUS, mozjs_anon_sym_DASH_DASH, mozjs_anon_sym_BQUOTE]"

definition mozjs_small_run_15895 :: "nat list" where
  "mozjs_small_run_15895 =
    [3, 5, 2, mozjs_sym_html_comment, mozjs_sym_comment, 1706, 12, mozjs_anon_sym_STAR,
      mozjs_anon_sym_in, mozjs_anon_sym_LT, mozjs_anon_sym_GT, mozjs_anon_sym_GT_GT,
      mozjs_anon_sym_AMP, mozjs_anon_sym_PIPE, mozjs_anon_sym_PLUS, mozjs_anon_sym_DASH,
      mozjs_anon_sym_SLASH, mozjs_anon_sym_EQ_EQ, mozjs_anon_sym_BANG_EQ, 1708, 29,
      mozjs_sym__ternary_qmark, mozjs_anon_sym_LBRACE, mozjs_anon_sym_COMMA,
      mozjs_anon_sym_RBRACE, mozjs_anon_sym_of, mozjs_anon_sym_LPAREN, mozjs_anon_sym_SEMI,
      mozjs_anon_sym_RPAREN, mozjs_anon_sym_COLON, mozjs_anon_sym_LBRACK, mozjs_anon_sym_RBRACK,
      mozjs_anon_sym_DOT, mozjs_sym_optional_chain, mozjs_anon_sym_AMP_AMP,
      mozjs_anon_sym_PIPE_PIPE, mozjs_anon_sym_GT_GT_GT, mozjs_anon_sym_LT_LT,
      mozjs_anon_sym_CARET, mozjs_anon_sym_PERCENT, mozjs_anon_sym_STAR_STAR,
      mozjs_anon_sym_LT_EQ, mozjs_anon_sym_EQ_EQ_EQ, mozjs_anon_sym_BANG_EQ_EQ,
      mozjs_anon_sym_GT_EQ, mozjs_anon_sym_QMARK_QMARK, mozjs_anon_sym_instanceof,
      mozjs_anon_sym_PLUS_PLUS, mozjs_anon_sym_DASH_DASH, mozjs_anon_sym_BQUOTE]"

definition mozjs_small_run_15945 :: "nat list" where
  "mozjs_small_run_15945 =
    [3, 5, 2, mozjs_sym_html_comment, mozjs_sym_comment, 1684, 12, mozjs_anon_sym_STAR,
      mozjs_anon_sym_in, mozjs_anon_sym_LT, mozjs_anon_sym_GT, mozjs_anon_sym_GT_GT,
      mozjs_anon_sym_AMP, mozjs_anon_sym_PIPE, mozjs_anon_sym_PLUS, mozjs_anon_sym_DASH,
      mozjs_anon_sym_SLASH, mozjs_anon_sym_EQ_EQ, mozjs_anon_sym_BANG_EQ, 1686, 29,
      mozjs_sym__ternary_qmark, mozjs_anon_sym_LBRACE, mozjs_anon_sym_COMMA,
      mozjs_anon_sym_RBRACE, mozjs_anon_sym_of, mozjs_anon_sym_LPAREN, mozjs_anon_sym_SEMI,
      mozjs_anon_sym_RPAREN, mozjs_anon_sym_COLON, mozjs_anon_sym_LBRACK, mozjs_anon_sym_RBRACK,
      mozjs_anon_sym_DOT, mozjs_sym_optional_chain, mozjs_anon_sym_AMP_AMP,
      mozjs_anon_sym_PIPE_PIPE, mozjs_anon_sym_GT_GT_GT, mozjs_anon_sym_LT_LT,
      mozjs_anon_sym_CARET, mozjs_anon_sym_PERCENT, mozjs_anon_sym_STAR_STAR,
      mozjs_anon_sym_LT_EQ, mozjs_anon_sym_EQ_EQ_EQ, mozjs_anon_sym_BANG_EQ_EQ,
      mozjs_anon_sym_GT_EQ, mozjs_anon_sym_QMARK_QMARK, mozjs_anon_sym_instanceof,
      mozjs_anon_sym_PLUS_PLUS, mozjs_anon_sym_DASH_DASH, mozjs_anon_sym_BQUOTE]"

definition mozjs_small_run_15995 :: "nat list" where
  "mozjs_small_run_15995 =
    [3, 5, 2, mozjs_sym_html_comment, mozjs_sym_comment, 1684, 12, mozjs_anon_sym_STAR,
      mozjs_anon_sym_in, mozjs_anon_sym_LT, mozjs_anon_sym_GT, mozjs_anon_sym_GT_GT,
      mozjs_anon_sym_AMP, mozjs_anon_sym_PIPE, mozjs_anon_sym_PLUS, mozjs_anon_sym_DASH,
      mozjs_anon_sym_SLASH, mozjs_anon_sym_EQ_EQ, mozjs_anon_sym_BANG_EQ, 1686, 29,
      mozjs_sym__ternary_qmark, mozjs_anon_sym_LBRACE, mozjs_anon_sym_COMMA,
      mozjs_anon_sym_RBRACE, mozjs_anon_sym_of, mozjs_anon_sym_LPAREN, mozjs_anon_sym_SEMI,
      mozjs_anon_sym_RPAREN, mozjs_anon_sym_COLON, mozjs_anon_sym_LBRACK, mozjs_anon_sym_RBRACK,
      mozjs_anon_sym_DOT, mozjs_sym_optional_chain, mozjs_anon_sym_AMP_AMP,
      mozjs_anon_sym_PIPE_PIPE, mozjs_anon_sym_GT_GT_GT, mozjs_anon_sym_LT_LT,
      mozjs_anon_sym_CARET, mozjs_anon_sym_PERCENT, mozjs_anon_sym_STAR_STAR,
      mozjs_anon_sym_LT_EQ, mozjs_anon_sym_EQ_EQ_EQ, mozjs_anon_sym_BANG_EQ_EQ,
      mozjs_anon_sym_GT_EQ, mozjs_anon_sym_QMARK_QMARK, mozjs_anon_sym_instanceof,
      mozjs_anon_sym_PLUS_PLUS, mozjs_anon_sym_DASH_DASH, mozjs_anon_sym_BQUOTE]"

definition mozjs_small_run_16045 :: "nat list" where
  "mozjs_small_run_16045 =
    [3, 5, 2, mozjs_sym_html_comment, mozjs_sym_comment, 1710, 12, mozjs_anon_sym_STAR,
      mozjs_anon_sym_in, mozjs_anon_sym_LT, mozjs_anon_sym_GT, mozjs_anon_sym_GT_GT,
      mozjs_anon_sym_AMP, mozjs_anon_sym_PIPE, mozjs_anon_sym_PLUS, mozjs_anon_sym_DASH,
      mozjs_anon_sym_SLASH, mozjs_anon_sym_EQ_EQ, mozjs_anon_sym_BANG_EQ, 1712, 29,
      mozjs_sym__ternary_qmark, mozjs_anon_sym_LBRACE, mozjs_anon_sym_COMMA,
      mozjs_anon_sym_RBRACE, mozjs_anon_sym_of, mozjs_anon_sym_LPAREN, mozjs_anon_sym_SEMI,
      mozjs_anon_sym_RPAREN, mozjs_anon_sym_COLON, mozjs_anon_sym_LBRACK, mozjs_anon_sym_RBRACK,
      mozjs_anon_sym_DOT, mozjs_sym_optional_chain, mozjs_anon_sym_AMP_AMP,
      mozjs_anon_sym_PIPE_PIPE, mozjs_anon_sym_GT_GT_GT, mozjs_anon_sym_LT_LT,
      mozjs_anon_sym_CARET, mozjs_anon_sym_PERCENT, mozjs_anon_sym_STAR_STAR,
      mozjs_anon_sym_LT_EQ, mozjs_anon_sym_EQ_EQ_EQ, mozjs_anon_sym_BANG_EQ_EQ,
      mozjs_anon_sym_GT_EQ, mozjs_anon_sym_QMARK_QMARK, mozjs_anon_sym_instanceof,
      mozjs_anon_sym_PLUS_PLUS, mozjs_anon_sym_DASH_DASH, mozjs_anon_sym_BQUOTE]"

definition mozjs_small_run_16095 :: "nat list" where
  "mozjs_small_run_16095 =
    [3, 5, 2, mozjs_sym_html_comment, mozjs_sym_comment, 711, 12, mozjs_anon_sym_STAR,
      mozjs_anon_sym_in, mozjs_anon_sym_LT, mozjs_anon_sym_GT, mozjs_anon_sym_GT_GT,
      mozjs_anon_sym_AMP, mozjs_anon_sym_PIPE, mozjs_anon_sym_PLUS, mozjs_anon_sym_DASH,
      mozjs_anon_sym_SLASH, mozjs_anon_sym_EQ_EQ, mozjs_anon_sym_BANG_EQ, 709, 29,
      mozjs_sym__ternary_qmark, mozjs_anon_sym_LBRACE, mozjs_anon_sym_COMMA,
      mozjs_anon_sym_RBRACE, mozjs_anon_sym_of, mozjs_anon_sym_LPAREN, mozjs_anon_sym_SEMI,
      mozjs_anon_sym_RPAREN, mozjs_anon_sym_COLON, mozjs_anon_sym_LBRACK, mozjs_anon_sym_RBRACK,
      mozjs_anon_sym_DOT, mozjs_sym_optional_chain, mozjs_anon_sym_AMP_AMP,
      mozjs_anon_sym_PIPE_PIPE, mozjs_anon_sym_GT_GT_GT, mozjs_anon_sym_LT_LT,
      mozjs_anon_sym_CARET, mozjs_anon_sym_PERCENT, mozjs_anon_sym_STAR_STAR,
      mozjs_anon_sym_LT_EQ, mozjs_anon_sym_EQ_EQ_EQ, mozjs_anon_sym_BANG_EQ_EQ,
      mozjs_anon_sym_GT_EQ, mozjs_anon_sym_QMARK_QMARK, mozjs_anon_sym_instanceof,
      mozjs_anon_sym_PLUS_PLUS, mozjs_anon_sym_DASH_DASH, mozjs_anon_sym_BQUOTE]"

definition mozjs_small_run_16145 :: "nat list" where
  "mozjs_small_run_16145 =
    [3, 5, 2, mozjs_sym_html_comment, mozjs_sym_comment, 1714, 12, mozjs_anon_sym_STAR,
      mozjs_anon_sym_in, mozjs_anon_sym_LT, mozjs_anon_sym_GT, mozjs_anon_sym_GT_GT,
      mozjs_anon_sym_AMP, mozjs_anon_sym_PIPE, mozjs_anon_sym_PLUS, mozjs_anon_sym_DASH,
      mozjs_anon_sym_SLASH, mozjs_anon_sym_EQ_EQ, mozjs_anon_sym_BANG_EQ, 1716, 29,
      mozjs_sym__ternary_qmark, mozjs_anon_sym_LBRACE, mozjs_anon_sym_COMMA,
      mozjs_anon_sym_RBRACE, mozjs_anon_sym_of, mozjs_anon_sym_LPAREN, mozjs_anon_sym_SEMI,
      mozjs_anon_sym_RPAREN, mozjs_anon_sym_COLON, mozjs_anon_sym_LBRACK, mozjs_anon_sym_RBRACK,
      mozjs_anon_sym_DOT, mozjs_sym_optional_chain, mozjs_anon_sym_AMP_AMP,
      mozjs_anon_sym_PIPE_PIPE, mozjs_anon_sym_GT_GT_GT, mozjs_anon_sym_LT_LT,
      mozjs_anon_sym_CARET, mozjs_anon_sym_PERCENT, mozjs_anon_sym_STAR_STAR,
      mozjs_anon_sym_LT_EQ, mozjs_anon_sym_EQ_EQ_EQ, mozjs_anon_sym_BANG_EQ_EQ,
      mozjs_anon_sym_GT_EQ, mozjs_anon_sym_QMARK_QMARK, mozjs_anon_sym_instanceof,
      mozjs_anon_sym_PLUS_PLUS, mozjs_anon_sym_DASH_DASH, mozjs_anon_sym_BQUOTE]"

definition mozjs_small_run_16195 :: "nat list" where
  "mozjs_small_run_16195 =
    [3, 5, 2, mozjs_sym_html_comment, mozjs_sym_comment, 705, 12, mozjs_anon_sym_STAR,
      mozjs_anon_sym_in, mozjs_anon_sym_LT, mozjs_anon_sym_GT, mozjs_anon_sym_GT_GT,
      mozjs_anon_sym_AMP, mozjs_anon_sym_PIPE, mozjs_anon_sym_PLUS, mozjs_anon_sym_DASH,
      mozjs_anon_sym_SLASH, mozjs_anon_sym_EQ_EQ, mozjs_anon_sym_BANG_EQ, 703, 29,
      mozjs_sym__ternary_qmark, mozjs_anon_sym_LBRACE, mozjs_anon_sym_COMMA,
      mozjs_anon_sym_RBRACE, mozjs_anon_sym_of, mozjs_anon_sym_LPAREN, mozjs_anon_sym_SEMI,
      mozjs_anon_sym_RPAREN, mozjs_anon_sym_COLON, mozjs_anon_sym_LBRACK, mozjs_anon_sym_RBRACK,
      mozjs_anon_sym_DOT, mozjs_sym_optional_chain, mozjs_anon_sym_AMP_AMP,
      mozjs_anon_sym_PIPE_PIPE, mozjs_anon_sym_GT_GT_GT, mozjs_anon_sym_LT_LT,
      mozjs_anon_sym_CARET, mozjs_anon_sym_PERCENT, mozjs_anon_sym_STAR_STAR,
      mozjs_anon_sym_LT_EQ, mozjs_anon_sym_EQ_EQ_EQ, mozjs_anon_sym_BANG_EQ_EQ,
      mozjs_anon_sym_GT_EQ, mozjs_anon_sym_QMARK_QMARK, mozjs_anon_sym_instanceof,
      mozjs_anon_sym_PLUS_PLUS, mozjs_anon_sym_DASH_DASH, mozjs_anon_sym_BQUOTE]"

definition mozjs_small_run_16245 :: "nat list" where
  "mozjs_small_run_16245 =
    [3, 5, 2, mozjs_sym_html_comment, mozjs_sym_comment, 1718, 12, mozjs_anon_sym_STAR,
      mozjs_anon_sym_in, mozjs_anon_sym_LT, mozjs_anon_sym_GT, mozjs_anon_sym_GT_GT,
      mozjs_anon_sym_AMP, mozjs_anon_sym_PIPE, mozjs_anon_sym_PLUS, mozjs_anon_sym_DASH,
      mozjs_anon_sym_SLASH, mozjs_anon_sym_EQ_EQ, mozjs_anon_sym_BANG_EQ, 1720, 29,
      mozjs_sym__ternary_qmark, mozjs_anon_sym_LBRACE, mozjs_anon_sym_COMMA,
      mozjs_anon_sym_RBRACE, mozjs_anon_sym_of, mozjs_anon_sym_LPAREN, mozjs_anon_sym_SEMI,
      mozjs_anon_sym_RPAREN, mozjs_anon_sym_COLON, mozjs_anon_sym_LBRACK, mozjs_anon_sym_RBRACK,
      mozjs_anon_sym_DOT, mozjs_sym_optional_chain, mozjs_anon_sym_AMP_AMP,
      mozjs_anon_sym_PIPE_PIPE, mozjs_anon_sym_GT_GT_GT, mozjs_anon_sym_LT_LT,
      mozjs_anon_sym_CARET, mozjs_anon_sym_PERCENT, mozjs_anon_sym_STAR_STAR,
      mozjs_anon_sym_LT_EQ, mozjs_anon_sym_EQ_EQ_EQ, mozjs_anon_sym_BANG_EQ_EQ,
      mozjs_anon_sym_GT_EQ, mozjs_anon_sym_QMARK_QMARK, mozjs_anon_sym_instanceof,
      mozjs_anon_sym_PLUS_PLUS, mozjs_anon_sym_DASH_DASH, mozjs_anon_sym_BQUOTE]"

definition mozjs_small_run_16295 :: "nat list" where
  "mozjs_small_run_16295 =
    [3, 5, 2, mozjs_sym_html_comment, mozjs_sym_comment, 1722, 12, mozjs_anon_sym_STAR,
      mozjs_anon_sym_in, mozjs_anon_sym_LT, mozjs_anon_sym_GT, mozjs_anon_sym_GT_GT,
      mozjs_anon_sym_AMP, mozjs_anon_sym_PIPE, mozjs_anon_sym_PLUS, mozjs_anon_sym_DASH,
      mozjs_anon_sym_SLASH, mozjs_anon_sym_EQ_EQ, mozjs_anon_sym_BANG_EQ, 1724, 29,
      mozjs_sym__ternary_qmark, mozjs_anon_sym_LBRACE, mozjs_anon_sym_COMMA,
      mozjs_anon_sym_RBRACE, mozjs_anon_sym_of, mozjs_anon_sym_LPAREN, mozjs_anon_sym_SEMI,
      mozjs_anon_sym_RPAREN, mozjs_anon_sym_COLON, mozjs_anon_sym_LBRACK, mozjs_anon_sym_RBRACK,
      mozjs_anon_sym_DOT, mozjs_sym_optional_chain, mozjs_anon_sym_AMP_AMP,
      mozjs_anon_sym_PIPE_PIPE, mozjs_anon_sym_GT_GT_GT, mozjs_anon_sym_LT_LT,
      mozjs_anon_sym_CARET, mozjs_anon_sym_PERCENT, mozjs_anon_sym_STAR_STAR,
      mozjs_anon_sym_LT_EQ, mozjs_anon_sym_EQ_EQ_EQ, mozjs_anon_sym_BANG_EQ_EQ,
      mozjs_anon_sym_GT_EQ, mozjs_anon_sym_QMARK_QMARK, mozjs_anon_sym_instanceof,
      mozjs_anon_sym_PLUS_PLUS, mozjs_anon_sym_DASH_DASH, mozjs_anon_sym_BQUOTE]"

definition mozjs_small_run_16345 :: "nat list" where
  "mozjs_small_run_16345 =
    [3, 5, 2, mozjs_sym_html_comment, mozjs_sym_comment, 715, 12, mozjs_anon_sym_STAR,
      mozjs_anon_sym_in, mozjs_anon_sym_LT, mozjs_anon_sym_GT, mozjs_anon_sym_GT_GT,
      mozjs_anon_sym_AMP, mozjs_anon_sym_PIPE, mozjs_anon_sym_PLUS, mozjs_anon_sym_DASH,
      mozjs_anon_sym_SLASH, mozjs_anon_sym_EQ_EQ, mozjs_anon_sym_BANG_EQ, 713, 29,
      mozjs_sym__ternary_qmark, mozjs_anon_sym_LBRACE, mozjs_anon_sym_COMMA,
      mozjs_anon_sym_RBRACE, mozjs_anon_sym_of, mozjs_anon_sym_LPAREN, mozjs_anon_sym_SEMI,
      mozjs_anon_sym_RPAREN, mozjs_anon_sym_COLON, mozjs_anon_sym_LBRACK, mozjs_anon_sym_RBRACK,
      mozjs_anon_sym_DOT, mozjs_sym_optional_chain, mozjs_anon_sym_AMP_AMP,
      mozjs_anon_sym_PIPE_PIPE, mozjs_anon_sym_GT_GT_GT, mozjs_anon_sym_LT_LT,
      mozjs_anon_sym_CARET, mozjs_anon_sym_PERCENT, mozjs_anon_sym_STAR_STAR,
      mozjs_anon_sym_LT_EQ, mozjs_anon_sym_EQ_EQ_EQ, mozjs_anon_sym_BANG_EQ_EQ,
      mozjs_anon_sym_GT_EQ, mozjs_anon_sym_QMARK_QMARK, mozjs_anon_sym_instanceof,
      mozjs_anon_sym_PLUS_PLUS, mozjs_anon_sym_DASH_DASH, mozjs_anon_sym_BQUOTE]"

definition mozjs_small_run_16395 :: "nat list" where
  "mozjs_small_run_16395 =
    [3, 5, 2, mozjs_sym_html_comment, mozjs_sym_comment, 1726, 12, mozjs_anon_sym_STAR,
      mozjs_anon_sym_in, mozjs_anon_sym_LT, mozjs_anon_sym_GT, mozjs_anon_sym_GT_GT,
      mozjs_anon_sym_AMP, mozjs_anon_sym_PIPE, mozjs_anon_sym_PLUS, mozjs_anon_sym_DASH,
      mozjs_anon_sym_SLASH, mozjs_anon_sym_EQ_EQ, mozjs_anon_sym_BANG_EQ, 1728, 29,
      mozjs_sym__ternary_qmark, mozjs_anon_sym_LBRACE, mozjs_anon_sym_COMMA,
      mozjs_anon_sym_RBRACE, mozjs_anon_sym_of, mozjs_anon_sym_LPAREN, mozjs_anon_sym_SEMI,
      mozjs_anon_sym_RPAREN, mozjs_anon_sym_COLON, mozjs_anon_sym_LBRACK, mozjs_anon_sym_RBRACK,
      mozjs_anon_sym_DOT, mozjs_sym_optional_chain, mozjs_anon_sym_AMP_AMP,
      mozjs_anon_sym_PIPE_PIPE, mozjs_anon_sym_GT_GT_GT, mozjs_anon_sym_LT_LT,
      mozjs_anon_sym_CARET, mozjs_anon_sym_PERCENT, mozjs_anon_sym_STAR_STAR,
      mozjs_anon_sym_LT_EQ, mozjs_anon_sym_EQ_EQ_EQ, mozjs_anon_sym_BANG_EQ_EQ,
      mozjs_anon_sym_GT_EQ, mozjs_anon_sym_QMARK_QMARK, mozjs_anon_sym_instanceof,
      mozjs_anon_sym_PLUS_PLUS, mozjs_anon_sym_DASH_DASH, mozjs_anon_sym_BQUOTE]"

definition mozjs_small_run_16445 :: "nat list" where
  "mozjs_small_run_16445 =
    [3, 5, 2, mozjs_sym_html_comment, mozjs_sym_comment, 1730, 12, mozjs_anon_sym_STAR,
      mozjs_anon_sym_in, mozjs_anon_sym_LT, mozjs_anon_sym_GT, mozjs_anon_sym_GT_GT,
      mozjs_anon_sym_AMP, mozjs_anon_sym_PIPE, mozjs_anon_sym_PLUS, mozjs_anon_sym_DASH,
      mozjs_anon_sym_SLASH, mozjs_anon_sym_EQ_EQ, mozjs_anon_sym_BANG_EQ, 1732, 29,
      mozjs_sym__ternary_qmark, mozjs_anon_sym_LBRACE, mozjs_anon_sym_COMMA,
      mozjs_anon_sym_RBRACE, mozjs_anon_sym_of, mozjs_anon_sym_LPAREN, mozjs_anon_sym_SEMI,
      mozjs_anon_sym_RPAREN, mozjs_anon_sym_COLON, mozjs_anon_sym_LBRACK, mozjs_anon_sym_RBRACK,
      mozjs_anon_sym_DOT, mozjs_sym_optional_chain, mozjs_anon_sym_AMP_AMP,
      mozjs_anon_sym_PIPE_PIPE, mozjs_anon_sym_GT_GT_GT, mozjs_anon_sym_LT_LT,
      mozjs_anon_sym_CARET, mozjs_anon_sym_PERCENT, mozjs_anon_sym_STAR_STAR,
      mozjs_anon_sym_LT_EQ, mozjs_anon_sym_EQ_EQ_EQ, mozjs_anon_sym_BANG_EQ_EQ,
      mozjs_anon_sym_GT_EQ, mozjs_anon_sym_QMARK_QMARK, mozjs_anon_sym_instanceof,
      mozjs_anon_sym_PLUS_PLUS, mozjs_anon_sym_DASH_DASH, mozjs_anon_sym_BQUOTE]"

definition mozjs_small_run_16495 :: "nat list" where
  "mozjs_small_run_16495 =
    [3, 5, 2, mozjs_sym_html_comment, mozjs_sym_comment, 1734, 12, mozjs_anon_sym_STAR,
      mozjs_anon_sym_in, mozjs_anon_sym_LT, mozjs_anon_sym_GT, mozjs_anon_sym_GT_GT,
      mozjs_anon_sym_AMP, mozjs_anon_sym_PIPE, mozjs_anon_sym_PLUS, mozjs_anon_sym_DASH,
      mozjs_anon_sym_SLASH, mozjs_anon_sym_EQ_EQ, mozjs_anon_sym_BANG_EQ, 1736, 29,
      mozjs_sym__ternary_qmark, mozjs_anon_sym_LBRACE, mozjs_anon_sym_COMMA,
      mozjs_anon_sym_RBRACE, mozjs_anon_sym_of, mozjs_anon_sym_LPAREN, mozjs_anon_sym_SEMI,
      mozjs_anon_sym_RPAREN, mozjs_anon_sym_COLON, mozjs_anon_sym_LBRACK, mozjs_anon_sym_RBRACK,
      mozjs_anon_sym_DOT, mozjs_sym_optional_chain, mozjs_anon_sym_AMP_AMP,
      mozjs_anon_sym_PIPE_PIPE, mozjs_anon_sym_GT_GT_GT, mozjs_anon_sym_LT_LT,
      mozjs_anon_sym_CARET, mozjs_anon_sym_PERCENT, mozjs_anon_sym_STAR_STAR,
      mozjs_anon_sym_LT_EQ, mozjs_anon_sym_EQ_EQ_EQ, mozjs_anon_sym_BANG_EQ_EQ,
      mozjs_anon_sym_GT_EQ, mozjs_anon_sym_QMARK_QMARK, mozjs_anon_sym_instanceof,
      mozjs_anon_sym_PLUS_PLUS, mozjs_anon_sym_DASH_DASH, mozjs_anon_sym_BQUOTE]"

definition mozjs_small_run_16545 :: "nat list" where
  "mozjs_small_run_16545 =
    [3, 5, 2, mozjs_sym_html_comment, mozjs_sym_comment, 1586, 12, mozjs_anon_sym_STAR,
      mozjs_anon_sym_in, mozjs_anon_sym_LT, mozjs_anon_sym_GT, mozjs_anon_sym_GT_GT,
      mozjs_anon_sym_AMP, mozjs_anon_sym_PIPE, mozjs_anon_sym_PLUS, mozjs_anon_sym_DASH,
      mozjs_anon_sym_SLASH, mozjs_anon_sym_EQ_EQ, mozjs_anon_sym_BANG_EQ, 1588, 29,
      mozjs_sym__ternary_qmark, mozjs_anon_sym_LBRACE, mozjs_anon_sym_COMMA,
      mozjs_anon_sym_RBRACE, mozjs_anon_sym_of, mozjs_anon_sym_LPAREN, mozjs_anon_sym_SEMI,
      mozjs_anon_sym_RPAREN, mozjs_anon_sym_COLON, mozjs_anon_sym_LBRACK, mozjs_anon_sym_RBRACK,
      mozjs_anon_sym_DOT, mozjs_sym_optional_chain, mozjs_anon_sym_AMP_AMP,
      mozjs_anon_sym_PIPE_PIPE, mozjs_anon_sym_GT_GT_GT, mozjs_anon_sym_LT_LT,
      mozjs_anon_sym_CARET, mozjs_anon_sym_PERCENT, mozjs_anon_sym_STAR_STAR,
      mozjs_anon_sym_LT_EQ, mozjs_anon_sym_EQ_EQ_EQ, mozjs_anon_sym_BANG_EQ_EQ,
      mozjs_anon_sym_GT_EQ, mozjs_anon_sym_QMARK_QMARK, mozjs_anon_sym_instanceof,
      mozjs_anon_sym_PLUS_PLUS, mozjs_anon_sym_DASH_DASH, mozjs_anon_sym_BQUOTE]"

definition mozjs_small_run_16595 :: "nat list" where
  "mozjs_small_run_16595 =
    [3, 5, 2, mozjs_sym_html_comment, mozjs_sym_comment, 1616, 12, mozjs_anon_sym_STAR,
      mozjs_anon_sym_in, mozjs_anon_sym_LT, mozjs_anon_sym_GT, mozjs_anon_sym_GT_GT,
      mozjs_anon_sym_AMP, mozjs_anon_sym_PIPE, mozjs_anon_sym_PLUS, mozjs_anon_sym_DASH,
      mozjs_anon_sym_SLASH, mozjs_anon_sym_EQ_EQ, mozjs_anon_sym_BANG_EQ, 1618, 29,
      mozjs_sym__ternary_qmark, mozjs_anon_sym_LBRACE, mozjs_anon_sym_COMMA,
      mozjs_anon_sym_RBRACE, mozjs_anon_sym_of, mozjs_anon_sym_LPAREN, mozjs_anon_sym_SEMI,
      mozjs_anon_sym_RPAREN, mozjs_anon_sym_COLON, mozjs_anon_sym_LBRACK, mozjs_anon_sym_RBRACK,
      mozjs_anon_sym_DOT, mozjs_sym_optional_chain, mozjs_anon_sym_AMP_AMP,
      mozjs_anon_sym_PIPE_PIPE, mozjs_anon_sym_GT_GT_GT, mozjs_anon_sym_LT_LT,
      mozjs_anon_sym_CARET, mozjs_anon_sym_PERCENT, mozjs_anon_sym_STAR_STAR,
      mozjs_anon_sym_LT_EQ, mozjs_anon_sym_EQ_EQ_EQ, mozjs_anon_sym_BANG_EQ_EQ,
      mozjs_anon_sym_GT_EQ, mozjs_anon_sym_QMARK_QMARK, mozjs_anon_sym_instanceof,
      mozjs_anon_sym_PLUS_PLUS, mozjs_anon_sym_DASH_DASH, mozjs_anon_sym_BQUOTE]"

definition mozjs_small_run_16645 :: "nat list" where
  "mozjs_small_run_16645 =
    [3, 5, 2, mozjs_sym_html_comment, mozjs_sym_comment, 1738, 12, mozjs_anon_sym_STAR,
      mozjs_anon_sym_in, mozjs_anon_sym_LT, mozjs_anon_sym_GT, mozjs_anon_sym_GT_GT,
      mozjs_anon_sym_AMP, mozjs_anon_sym_PIPE, mozjs_anon_sym_PLUS, mozjs_anon_sym_DASH,
      mozjs_anon_sym_SLASH, mozjs_anon_sym_EQ_EQ, mozjs_anon_sym_BANG_EQ, 1740, 29,
      mozjs_sym__ternary_qmark, mozjs_anon_sym_LBRACE, mozjs_anon_sym_COMMA,
      mozjs_anon_sym_RBRACE, mozjs_anon_sym_of, mozjs_anon_sym_LPAREN, mozjs_anon_sym_SEMI,
      mozjs_anon_sym_RPAREN, mozjs_anon_sym_COLON, mozjs_anon_sym_LBRACK, mozjs_anon_sym_RBRACK,
      mozjs_anon_sym_DOT, mozjs_sym_optional_chain, mozjs_anon_sym_AMP_AMP,
      mozjs_anon_sym_PIPE_PIPE, mozjs_anon_sym_GT_GT_GT, mozjs_anon_sym_LT_LT,
      mozjs_anon_sym_CARET, mozjs_anon_sym_PERCENT, mozjs_anon_sym_STAR_STAR,
      mozjs_anon_sym_LT_EQ, mozjs_anon_sym_EQ_EQ_EQ, mozjs_anon_sym_BANG_EQ_EQ,
      mozjs_anon_sym_GT_EQ, mozjs_anon_sym_QMARK_QMARK, mozjs_anon_sym_instanceof,
      mozjs_anon_sym_PLUS_PLUS, mozjs_anon_sym_DASH_DASH, mozjs_anon_sym_BQUOTE]"

definition mozjs_small_run_16695 :: "nat list" where
  "mozjs_small_run_16695 =
    [3, 5, 2, mozjs_sym_html_comment, mozjs_sym_comment, 1742, 12, mozjs_anon_sym_STAR,
      mozjs_anon_sym_in, mozjs_anon_sym_LT, mozjs_anon_sym_GT, mozjs_anon_sym_GT_GT,
      mozjs_anon_sym_AMP, mozjs_anon_sym_PIPE, mozjs_anon_sym_PLUS, mozjs_anon_sym_DASH,
      mozjs_anon_sym_SLASH, mozjs_anon_sym_EQ_EQ, mozjs_anon_sym_BANG_EQ, 1744, 29,
      mozjs_sym__ternary_qmark, mozjs_anon_sym_LBRACE, mozjs_anon_sym_COMMA,
      mozjs_anon_sym_RBRACE, mozjs_anon_sym_of, mozjs_anon_sym_LPAREN, mozjs_anon_sym_SEMI,
      mozjs_anon_sym_RPAREN, mozjs_anon_sym_COLON, mozjs_anon_sym_LBRACK, mozjs_anon_sym_RBRACK,
      mozjs_anon_sym_DOT, mozjs_sym_optional_chain, mozjs_anon_sym_AMP_AMP,
      mozjs_anon_sym_PIPE_PIPE, mozjs_anon_sym_GT_GT_GT, mozjs_anon_sym_LT_LT,
      mozjs_anon_sym_CARET, mozjs_anon_sym_PERCENT, mozjs_anon_sym_STAR_STAR,
      mozjs_anon_sym_LT_EQ, mozjs_anon_sym_EQ_EQ_EQ, mozjs_anon_sym_BANG_EQ_EQ,
      mozjs_anon_sym_GT_EQ, mozjs_anon_sym_QMARK_QMARK, mozjs_anon_sym_instanceof,
      mozjs_anon_sym_PLUS_PLUS, mozjs_anon_sym_DASH_DASH, mozjs_anon_sym_BQUOTE]"

definition mozjs_small_run_16745 :: "nat list" where
  "mozjs_small_run_16745 =
    [3, 5, 2, mozjs_sym_html_comment, mozjs_sym_comment, 1179, 16, mozjs_anon_sym_LBRACE,
      mozjs_anon_sym_LPAREN, mozjs_anon_sym_SEMI, mozjs_anon_sym_RPAREN, mozjs_anon_sym_LBRACK,
      mozjs_anon_sym_LT, mozjs_anon_sym_DQUOTE, mozjs_anon_sym_SQUOTE, mozjs_anon_sym_BANG,
      mozjs_anon_sym_TILDE, mozjs_anon_sym_PLUS_PLUS, mozjs_anon_sym_DASH_DASH,
      mozjs_anon_sym_BQUOTE, mozjs_sym_number, mozjs_sym_private_property_identifier,
      mozjs_anon_sym_AT, 1181, 25, mozjs_anon_sym_export, mozjs_anon_sym_import,
      mozjs_anon_sym_let, mozjs_anon_sym_await, mozjs_anon_sym_yield, mozjs_anon_sym_class,
      mozjs_anon_sym_async, mozjs_anon_sym_function, mozjs_anon_sym_new, mozjs_anon_sym_PLUS,
      mozjs_anon_sym_DASH, mozjs_anon_sym_SLASH, mozjs_anon_sym_typeof, mozjs_anon_sym_void,
      mozjs_anon_sym_delete, mozjs_sym_identifier, mozjs_sym_this, mozjs_sym_super,
      mozjs_sym_true, mozjs_sym_false, mozjs_sym_null, mozjs_sym_undefined,
      mozjs_anon_sym_static, mozjs_anon_sym_get, mozjs_anon_sym_set]"

definition mozjs_small_run_16795 :: "nat list" where
  "mozjs_small_run_16795 =
    [3, 5, 2, mozjs_sym_html_comment, mozjs_sym_comment, 1746, 12, mozjs_anon_sym_STAR,
      mozjs_anon_sym_in, mozjs_anon_sym_LT, mozjs_anon_sym_GT, mozjs_anon_sym_GT_GT,
      mozjs_anon_sym_AMP, mozjs_anon_sym_PIPE, mozjs_anon_sym_PLUS, mozjs_anon_sym_DASH,
      mozjs_anon_sym_SLASH, mozjs_anon_sym_EQ_EQ, mozjs_anon_sym_BANG_EQ, 1748, 29,
      mozjs_sym__ternary_qmark, mozjs_anon_sym_LBRACE, mozjs_anon_sym_COMMA,
      mozjs_anon_sym_RBRACE, mozjs_anon_sym_of, mozjs_anon_sym_LPAREN, mozjs_anon_sym_SEMI,
      mozjs_anon_sym_RPAREN, mozjs_anon_sym_COLON, mozjs_anon_sym_LBRACK, mozjs_anon_sym_RBRACK,
      mozjs_anon_sym_DOT, mozjs_sym_optional_chain, mozjs_anon_sym_AMP_AMP,
      mozjs_anon_sym_PIPE_PIPE, mozjs_anon_sym_GT_GT_GT, mozjs_anon_sym_LT_LT,
      mozjs_anon_sym_CARET, mozjs_anon_sym_PERCENT, mozjs_anon_sym_STAR_STAR,
      mozjs_anon_sym_LT_EQ, mozjs_anon_sym_EQ_EQ_EQ, mozjs_anon_sym_BANG_EQ_EQ,
      mozjs_anon_sym_GT_EQ, mozjs_anon_sym_QMARK_QMARK, mozjs_anon_sym_instanceof,
      mozjs_anon_sym_PLUS_PLUS, mozjs_anon_sym_DASH_DASH, mozjs_anon_sym_BQUOTE]"

definition mozjs_small_run_16845 :: "nat list" where
  "mozjs_small_run_16845 =
    [3, 5, 2, mozjs_sym_html_comment, mozjs_sym_comment, 1750, 12, mozjs_anon_sym_STAR,
      mozjs_anon_sym_in, mozjs_anon_sym_LT, mozjs_anon_sym_GT, mozjs_anon_sym_GT_GT,
      mozjs_anon_sym_AMP, mozjs_anon_sym_PIPE, mozjs_anon_sym_PLUS, mozjs_anon_sym_DASH,
      mozjs_anon_sym_SLASH, mozjs_anon_sym_EQ_EQ, mozjs_anon_sym_BANG_EQ, 1752, 29,
      mozjs_sym__ternary_qmark, mozjs_anon_sym_LBRACE, mozjs_anon_sym_COMMA,
      mozjs_anon_sym_RBRACE, mozjs_anon_sym_of, mozjs_anon_sym_LPAREN, mozjs_anon_sym_SEMI,
      mozjs_anon_sym_RPAREN, mozjs_anon_sym_COLON, mozjs_anon_sym_LBRACK, mozjs_anon_sym_RBRACK,
      mozjs_anon_sym_DOT, mozjs_sym_optional_chain, mozjs_anon_sym_AMP_AMP,
      mozjs_anon_sym_PIPE_PIPE, mozjs_anon_sym_GT_GT_GT, mozjs_anon_sym_LT_LT,
      mozjs_anon_sym_CARET, mozjs_anon_sym_PERCENT, mozjs_anon_sym_STAR_STAR,
      mozjs_anon_sym_LT_EQ, mozjs_anon_sym_EQ_EQ_EQ, mozjs_anon_sym_BANG_EQ_EQ,
      mozjs_anon_sym_GT_EQ, mozjs_anon_sym_QMARK_QMARK, mozjs_anon_sym_instanceof,
      mozjs_anon_sym_PLUS_PLUS, mozjs_anon_sym_DASH_DASH, mozjs_anon_sym_BQUOTE]"

definition mozjs_small_run_16895 :: "nat list" where
  "mozjs_small_run_16895 =
    [3, 5, 2, mozjs_sym_html_comment, mozjs_sym_comment, 1435, 12, mozjs_anon_sym_STAR,
      mozjs_anon_sym_in, mozjs_anon_sym_LT, mozjs_anon_sym_GT, mozjs_anon_sym_GT_GT,
      mozjs_anon_sym_AMP, mozjs_anon_sym_PIPE, mozjs_anon_sym_PLUS, mozjs_anon_sym_DASH,
      mozjs_anon_sym_SLASH, mozjs_anon_sym_EQ_EQ, mozjs_anon_sym_BANG_EQ, 1437, 29,
      mozjs_sym__ternary_qmark, mozjs_anon_sym_LBRACE, mozjs_anon_sym_COMMA,
      mozjs_anon_sym_RBRACE, mozjs_anon_sym_of, mozjs_anon_sym_LPAREN, mozjs_anon_sym_SEMI,
      mozjs_anon_sym_RPAREN, mozjs_anon_sym_COLON, mozjs_anon_sym_LBRACK, mozjs_anon_sym_RBRACK,
      mozjs_anon_sym_DOT, mozjs_sym_optional_chain, mozjs_anon_sym_AMP_AMP,
      mozjs_anon_sym_PIPE_PIPE, mozjs_anon_sym_GT_GT_GT, mozjs_anon_sym_LT_LT,
      mozjs_anon_sym_CARET, mozjs_anon_sym_PERCENT, mozjs_anon_sym_STAR_STAR,
      mozjs_anon_sym_LT_EQ, mozjs_anon_sym_EQ_EQ_EQ, mozjs_anon_sym_BANG_EQ_EQ,
      mozjs_anon_sym_GT_EQ, mozjs_anon_sym_QMARK_QMARK, mozjs_anon_sym_instanceof,
      mozjs_anon_sym_PLUS_PLUS, mozjs_anon_sym_DASH_DASH, mozjs_anon_sym_BQUOTE]"

definition mozjs_small_run_16945 :: "nat list" where
  "mozjs_small_run_16945 =
    [3, 5, 2, mozjs_sym_html_comment, mozjs_sym_comment, 1754, 12, mozjs_anon_sym_STAR,
      mozjs_anon_sym_in, mozjs_anon_sym_LT, mozjs_anon_sym_GT, mozjs_anon_sym_GT_GT,
      mozjs_anon_sym_AMP, mozjs_anon_sym_PIPE, mozjs_anon_sym_PLUS, mozjs_anon_sym_DASH,
      mozjs_anon_sym_SLASH, mozjs_anon_sym_EQ_EQ, mozjs_anon_sym_BANG_EQ, 1756, 29,
      mozjs_sym__ternary_qmark, mozjs_anon_sym_LBRACE, mozjs_anon_sym_COMMA,
      mozjs_anon_sym_RBRACE, mozjs_anon_sym_of, mozjs_anon_sym_LPAREN, mozjs_anon_sym_SEMI,
      mozjs_anon_sym_RPAREN, mozjs_anon_sym_COLON, mozjs_anon_sym_LBRACK, mozjs_anon_sym_RBRACK,
      mozjs_anon_sym_DOT, mozjs_sym_optional_chain, mozjs_anon_sym_AMP_AMP,
      mozjs_anon_sym_PIPE_PIPE, mozjs_anon_sym_GT_GT_GT, mozjs_anon_sym_LT_LT,
      mozjs_anon_sym_CARET, mozjs_anon_sym_PERCENT, mozjs_anon_sym_STAR_STAR,
      mozjs_anon_sym_LT_EQ, mozjs_anon_sym_EQ_EQ_EQ, mozjs_anon_sym_BANG_EQ_EQ,
      mozjs_anon_sym_GT_EQ, mozjs_anon_sym_QMARK_QMARK, mozjs_anon_sym_instanceof,
      mozjs_anon_sym_PLUS_PLUS, mozjs_anon_sym_DASH_DASH, mozjs_anon_sym_BQUOTE]"

definition mozjs_small_run_16995 :: "nat list" where
  "mozjs_small_run_16995 =
    [3, 5, 2, mozjs_sym_html_comment, mozjs_sym_comment, 1758, 12, mozjs_anon_sym_STAR,
      mozjs_anon_sym_in, mozjs_anon_sym_LT, mozjs_anon_sym_GT, mozjs_anon_sym_GT_GT,
      mozjs_anon_sym_AMP, mozjs_anon_sym_PIPE, mozjs_anon_sym_PLUS, mozjs_anon_sym_DASH,
      mozjs_anon_sym_SLASH, mozjs_anon_sym_EQ_EQ, mozjs_anon_sym_BANG_EQ, 1760, 29,
      mozjs_sym__ternary_qmark, mozjs_anon_sym_LBRACE, mozjs_anon_sym_COMMA,
      mozjs_anon_sym_RBRACE, mozjs_anon_sym_of, mozjs_anon_sym_LPAREN, mozjs_anon_sym_SEMI,
      mozjs_anon_sym_RPAREN, mozjs_anon_sym_COLON, mozjs_anon_sym_LBRACK, mozjs_anon_sym_RBRACK,
      mozjs_anon_sym_DOT, mozjs_sym_optional_chain, mozjs_anon_sym_AMP_AMP,
      mozjs_anon_sym_PIPE_PIPE, mozjs_anon_sym_GT_GT_GT, mozjs_anon_sym_LT_LT,
      mozjs_anon_sym_CARET, mozjs_anon_sym_PERCENT, mozjs_anon_sym_STAR_STAR,
      mozjs_anon_sym_LT_EQ, mozjs_anon_sym_EQ_EQ_EQ, mozjs_anon_sym_BANG_EQ_EQ,
      mozjs_anon_sym_GT_EQ, mozjs_anon_sym_QMARK_QMARK, mozjs_anon_sym_instanceof,
      mozjs_anon_sym_PLUS_PLUS, mozjs_anon_sym_DASH_DASH, mozjs_anon_sym_BQUOTE]"

definition mozjs_small_run_17045 :: "nat list" where
  "mozjs_small_run_17045 =
    [3, 5, 2, mozjs_sym_html_comment, mozjs_sym_comment, 1762, 12, mozjs_anon_sym_STAR,
      mozjs_anon_sym_in, mozjs_anon_sym_LT, mozjs_anon_sym_GT, mozjs_anon_sym_GT_GT,
      mozjs_anon_sym_AMP, mozjs_anon_sym_PIPE, mozjs_anon_sym_PLUS, mozjs_anon_sym_DASH,
      mozjs_anon_sym_SLASH, mozjs_anon_sym_EQ_EQ, mozjs_anon_sym_BANG_EQ, 1764, 29,
      mozjs_sym__ternary_qmark, mozjs_anon_sym_LBRACE, mozjs_anon_sym_COMMA,
      mozjs_anon_sym_RBRACE, mozjs_anon_sym_of, mozjs_anon_sym_LPAREN, mozjs_anon_sym_SEMI,
      mozjs_anon_sym_RPAREN, mozjs_anon_sym_COLON, mozjs_anon_sym_LBRACK, mozjs_anon_sym_RBRACK,
      mozjs_anon_sym_DOT, mozjs_sym_optional_chain, mozjs_anon_sym_AMP_AMP,
      mozjs_anon_sym_PIPE_PIPE, mozjs_anon_sym_GT_GT_GT, mozjs_anon_sym_LT_LT,
      mozjs_anon_sym_CARET, mozjs_anon_sym_PERCENT, mozjs_anon_sym_STAR_STAR,
      mozjs_anon_sym_LT_EQ, mozjs_anon_sym_EQ_EQ_EQ, mozjs_anon_sym_BANG_EQ_EQ,
      mozjs_anon_sym_GT_EQ, mozjs_anon_sym_QMARK_QMARK, mozjs_anon_sym_instanceof,
      mozjs_anon_sym_PLUS_PLUS, mozjs_anon_sym_DASH_DASH, mozjs_anon_sym_BQUOTE]"

definition mozjs_small_run_17095 :: "nat list" where
  "mozjs_small_run_17095 =
    [3, 5, 2, mozjs_sym_html_comment, mozjs_sym_comment, 1766, 12, mozjs_anon_sym_STAR,
      mozjs_anon_sym_in, mozjs_anon_sym_LT, mozjs_anon_sym_GT, mozjs_anon_sym_GT_GT,
      mozjs_anon_sym_AMP, mozjs_anon_sym_PIPE, mozjs_anon_sym_PLUS, mozjs_anon_sym_DASH,
      mozjs_anon_sym_SLASH, mozjs_anon_sym_EQ_EQ, mozjs_anon_sym_BANG_EQ, 1768, 29,
      mozjs_sym__ternary_qmark, mozjs_anon_sym_LBRACE, mozjs_anon_sym_COMMA,
      mozjs_anon_sym_RBRACE, mozjs_anon_sym_of, mozjs_anon_sym_LPAREN, mozjs_anon_sym_SEMI,
      mozjs_anon_sym_RPAREN, mozjs_anon_sym_COLON, mozjs_anon_sym_LBRACK, mozjs_anon_sym_RBRACK,
      mozjs_anon_sym_DOT, mozjs_sym_optional_chain, mozjs_anon_sym_AMP_AMP,
      mozjs_anon_sym_PIPE_PIPE, mozjs_anon_sym_GT_GT_GT, mozjs_anon_sym_LT_LT,
      mozjs_anon_sym_CARET, mozjs_anon_sym_PERCENT, mozjs_anon_sym_STAR_STAR,
      mozjs_anon_sym_LT_EQ, mozjs_anon_sym_EQ_EQ_EQ, mozjs_anon_sym_BANG_EQ_EQ,
      mozjs_anon_sym_GT_EQ, mozjs_anon_sym_QMARK_QMARK, mozjs_anon_sym_instanceof,
      mozjs_anon_sym_PLUS_PLUS, mozjs_anon_sym_DASH_DASH, mozjs_anon_sym_BQUOTE]"

definition mozjs_small_run_17145 :: "nat list" where
  "mozjs_small_run_17145 =
    [5, 1777, 1, mozjs_anon_sym_EQ, 5, 2, mozjs_sym_html_comment, mozjs_sym_comment, 1774, 4,
      mozjs_anon_sym_COMMA, mozjs_anon_sym_RBRACE, mozjs_anon_sym_RPAREN, mozjs_anon_sym_RBRACK,
      1770, 12, mozjs_anon_sym_STAR, mozjs_anon_sym_in, mozjs_anon_sym_LT, mozjs_anon_sym_GT,
      mozjs_anon_sym_GT_GT, mozjs_anon_sym_AMP, mozjs_anon_sym_PIPE, mozjs_anon_sym_PLUS,
      mozjs_anon_sym_DASH, mozjs_anon_sym_SLASH, mozjs_anon_sym_EQ_EQ, mozjs_anon_sym_BANG_EQ,
      1772, 24, mozjs_sym__ternary_qmark, mozjs_anon_sym_LBRACE, mozjs_anon_sym_of,
      mozjs_anon_sym_LPAREN, mozjs_anon_sym_COLON, mozjs_anon_sym_LBRACK, mozjs_anon_sym_DOT,
      mozjs_sym_optional_chain, mozjs_anon_sym_AMP_AMP, mozjs_anon_sym_PIPE_PIPE,
      mozjs_anon_sym_GT_GT_GT, mozjs_anon_sym_LT_LT, mozjs_anon_sym_CARET,
      mozjs_anon_sym_PERCENT, mozjs_anon_sym_STAR_STAR, mozjs_anon_sym_LT_EQ,
      mozjs_anon_sym_EQ_EQ_EQ, mozjs_anon_sym_BANG_EQ_EQ, mozjs_anon_sym_GT_EQ,
      mozjs_anon_sym_QMARK_QMARK, mozjs_anon_sym_instanceof, mozjs_anon_sym_PLUS_PLUS,
      mozjs_anon_sym_DASH_DASH, mozjs_anon_sym_BQUOTE]"

definition mozjs_small_run_17199 :: "nat list" where
  "mozjs_small_run_17199 =
    [3, 5, 2, mozjs_sym_html_comment, mozjs_sym_comment, 1779, 12, mozjs_anon_sym_STAR,
      mozjs_anon_sym_in, mozjs_anon_sym_LT, mozjs_anon_sym_GT, mozjs_anon_sym_GT_GT,
      mozjs_anon_sym_AMP, mozjs_anon_sym_PIPE, mozjs_anon_sym_PLUS, mozjs_anon_sym_DASH,
      mozjs_anon_sym_SLASH, mozjs_anon_sym_EQ_EQ, mozjs_anon_sym_BANG_EQ, 1781, 29,
      mozjs_sym__ternary_qmark, mozjs_anon_sym_LBRACE, mozjs_anon_sym_COMMA,
      mozjs_anon_sym_RBRACE, mozjs_anon_sym_of, mozjs_anon_sym_LPAREN, mozjs_anon_sym_SEMI,
      mozjs_anon_sym_RPAREN, mozjs_anon_sym_COLON, mozjs_anon_sym_LBRACK, mozjs_anon_sym_RBRACK,
      mozjs_anon_sym_DOT, mozjs_sym_optional_chain, mozjs_anon_sym_AMP_AMP,
      mozjs_anon_sym_PIPE_PIPE, mozjs_anon_sym_GT_GT_GT, mozjs_anon_sym_LT_LT,
      mozjs_anon_sym_CARET, mozjs_anon_sym_PERCENT, mozjs_anon_sym_STAR_STAR,
      mozjs_anon_sym_LT_EQ, mozjs_anon_sym_EQ_EQ_EQ, mozjs_anon_sym_BANG_EQ_EQ,
      mozjs_anon_sym_GT_EQ, mozjs_anon_sym_QMARK_QMARK, mozjs_anon_sym_instanceof,
      mozjs_anon_sym_PLUS_PLUS, mozjs_anon_sym_DASH_DASH, mozjs_anon_sym_BQUOTE]"

definition mozjs_small_run_17249 :: "nat list" where
  "mozjs_small_run_17249 =
    [3, 5, 2, mozjs_sym_html_comment, mozjs_sym_comment, 1783, 12, mozjs_anon_sym_STAR,
      mozjs_anon_sym_in, mozjs_anon_sym_LT, mozjs_anon_sym_GT, mozjs_anon_sym_GT_GT,
      mozjs_anon_sym_AMP, mozjs_anon_sym_PIPE, mozjs_anon_sym_PLUS, mozjs_anon_sym_DASH,
      mozjs_anon_sym_SLASH, mozjs_anon_sym_EQ_EQ, mozjs_anon_sym_BANG_EQ, 1785, 29,
      mozjs_sym__ternary_qmark, mozjs_anon_sym_LBRACE, mozjs_anon_sym_COMMA,
      mozjs_anon_sym_RBRACE, mozjs_anon_sym_of, mozjs_anon_sym_LPAREN, mozjs_anon_sym_SEMI,
      mozjs_anon_sym_RPAREN, mozjs_anon_sym_COLON, mozjs_anon_sym_LBRACK, mozjs_anon_sym_RBRACK,
      mozjs_anon_sym_DOT, mozjs_sym_optional_chain, mozjs_anon_sym_AMP_AMP,
      mozjs_anon_sym_PIPE_PIPE, mozjs_anon_sym_GT_GT_GT, mozjs_anon_sym_LT_LT,
      mozjs_anon_sym_CARET, mozjs_anon_sym_PERCENT, mozjs_anon_sym_STAR_STAR,
      mozjs_anon_sym_LT_EQ, mozjs_anon_sym_EQ_EQ_EQ, mozjs_anon_sym_BANG_EQ_EQ,
      mozjs_anon_sym_GT_EQ, mozjs_anon_sym_QMARK_QMARK, mozjs_anon_sym_instanceof,
      mozjs_anon_sym_PLUS_PLUS, mozjs_anon_sym_DASH_DASH, mozjs_anon_sym_BQUOTE]"

definition mozjs_small_run_17299 :: "nat list" where
  "mozjs_small_run_17299 =
    [17, 1578, 1, mozjs_anon_sym_LPAREN, 1580, 1, mozjs_anon_sym_LBRACK, 1582, 1,
      mozjs_anon_sym_DOT, 1594, 1, mozjs_sym_optional_chain, 1793, 1, mozjs_anon_sym_GT_GT, 1801,
      1, mozjs_anon_sym_PERCENT, 1803, 1, mozjs_anon_sym_STAR_STAR, 639, 1, mozjs_sym_arguments,
      5, 2, mozjs_sym_html_comment, mozjs_sym_comment, 1600, 2, mozjs_anon_sym_PLUS_PLUS,
      mozjs_anon_sym_DASH_DASH, 1787, 2, mozjs_anon_sym_STAR, mozjs_anon_sym_SLASH, 1795, 2,
      mozjs_anon_sym_GT_GT_GT, mozjs_anon_sym_LT_LT, 1799, 2, mozjs_anon_sym_PLUS,
      mozjs_anon_sym_DASH, 1791, 3, mozjs_anon_sym_in, mozjs_anon_sym_LT, mozjs_anon_sym_GT,
      1805, 3, mozjs_anon_sym_LT_EQ, mozjs_anon_sym_GT_EQ, mozjs_anon_sym_instanceof, 1797, 4,
      mozjs_anon_sym_AMP, mozjs_anon_sym_PIPE, mozjs_anon_sym_EQ_EQ, mozjs_anon_sym_BANG_EQ,
      1789, 14, mozjs_sym__ternary_qmark, mozjs_anon_sym_COMMA, mozjs_anon_sym_RBRACE,
      mozjs_anon_sym_SEMI, mozjs_anon_sym_RPAREN, mozjs_anon_sym_COLON, mozjs_anon_sym_RBRACK,
      mozjs_anon_sym_AMP_AMP, mozjs_anon_sym_PIPE_PIPE, mozjs_anon_sym_CARET,
      mozjs_anon_sym_EQ_EQ_EQ, mozjs_anon_sym_BANG_EQ_EQ, mozjs_anon_sym_QMARK_QMARK,
      mozjs_anon_sym_BQUOTE]"

definition mozjs_small_run_17376 :: "nat list" where
  "mozjs_small_run_17376 =
    [3, 5, 2, mozjs_sym_html_comment, mozjs_sym_comment, 1363, 15, mozjs_anon_sym_LBRACE,
      mozjs_anon_sym_LPAREN, mozjs_anon_sym_SEMI, mozjs_anon_sym_LBRACK, mozjs_anon_sym_LT,
      mozjs_anon_sym_DQUOTE, mozjs_anon_sym_SQUOTE, mozjs_anon_sym_BANG, mozjs_anon_sym_TILDE,
      mozjs_anon_sym_PLUS_PLUS, mozjs_anon_sym_DASH_DASH, mozjs_anon_sym_BQUOTE,
      mozjs_sym_number, mozjs_sym_private_property_identifier, mozjs_anon_sym_AT, 1365, 25,
      mozjs_anon_sym_export, mozjs_anon_sym_import, mozjs_anon_sym_let, mozjs_anon_sym_await,
      mozjs_anon_sym_yield, mozjs_anon_sym_class, mozjs_anon_sym_async, mozjs_anon_sym_function,
      mozjs_anon_sym_new, mozjs_anon_sym_PLUS, mozjs_anon_sym_DASH, mozjs_anon_sym_SLASH,
      mozjs_anon_sym_typeof, mozjs_anon_sym_void, mozjs_anon_sym_delete, mozjs_sym_identifier,
      mozjs_sym_this, mozjs_sym_super, mozjs_sym_true, mozjs_sym_false, mozjs_sym_null,
      mozjs_sym_undefined, mozjs_anon_sym_static, mozjs_anon_sym_get, mozjs_anon_sym_set]"

definition mozjs_small_run_17425 :: "nat list" where
  "mozjs_small_run_17425 =
    [4, 725, 1, mozjs_anon_sym_EQ, 5, 2, mozjs_sym_html_comment, mozjs_sym_comment, 721, 12,
      mozjs_anon_sym_STAR, mozjs_anon_sym_in, mozjs_anon_sym_LT, mozjs_anon_sym_GT,
      mozjs_anon_sym_GT_GT, mozjs_anon_sym_AMP, mozjs_anon_sym_PIPE, mozjs_anon_sym_PLUS,
      mozjs_anon_sym_DASH, mozjs_anon_sym_SLASH, mozjs_anon_sym_EQ_EQ, mozjs_anon_sym_BANG_EQ,
      723, 27, mozjs_sym__ternary_qmark, mozjs_anon_sym_COMMA, mozjs_anon_sym_RBRACE,
      mozjs_anon_sym_LPAREN, mozjs_anon_sym_SEMI, mozjs_anon_sym_RPAREN, mozjs_anon_sym_COLON,
      mozjs_anon_sym_LBRACK, mozjs_anon_sym_RBRACK, mozjs_anon_sym_DOT, mozjs_sym_optional_chain,
      mozjs_anon_sym_AMP_AMP, mozjs_anon_sym_PIPE_PIPE, mozjs_anon_sym_GT_GT_GT,
      mozjs_anon_sym_LT_LT, mozjs_anon_sym_CARET, mozjs_anon_sym_PERCENT,
      mozjs_anon_sym_STAR_STAR, mozjs_anon_sym_LT_EQ, mozjs_anon_sym_EQ_EQ_EQ,
      mozjs_anon_sym_BANG_EQ_EQ, mozjs_anon_sym_GT_EQ, mozjs_anon_sym_QMARK_QMARK,
      mozjs_anon_sym_instanceof, mozjs_anon_sym_PLUS_PLUS, mozjs_anon_sym_DASH_DASH,
      mozjs_anon_sym_BQUOTE]"

definition mozjs_small_run_17476 :: "nat list" where
  "mozjs_small_run_17476 =
    [3, 5, 2, mozjs_sym_html_comment, mozjs_sym_comment, 1243, 15, mozjs_anon_sym_LBRACE,
      mozjs_anon_sym_LPAREN, mozjs_anon_sym_SEMI, mozjs_anon_sym_LBRACK, mozjs_anon_sym_LT,
      mozjs_anon_sym_DQUOTE, mozjs_anon_sym_SQUOTE, mozjs_anon_sym_BANG, mozjs_anon_sym_TILDE,
      mozjs_anon_sym_PLUS_PLUS, mozjs_anon_sym_DASH_DASH, mozjs_anon_sym_BQUOTE,
      mozjs_sym_number, mozjs_sym_private_property_identifier, mozjs_anon_sym_AT, 1245, 25,
      mozjs_anon_sym_export, mozjs_anon_sym_import, mozjs_anon_sym_let, mozjs_anon_sym_await,
      mozjs_anon_sym_yield, mozjs_anon_sym_class, mozjs_anon_sym_async, mozjs_anon_sym_function,
      mozjs_anon_sym_new, mozjs_anon_sym_PLUS, mozjs_anon_sym_DASH, mozjs_anon_sym_SLASH,
      mozjs_anon_sym_typeof, mozjs_anon_sym_void, mozjs_anon_sym_delete, mozjs_sym_identifier,
      mozjs_sym_this, mozjs_sym_super, mozjs_sym_true, mozjs_sym_false, mozjs_sym_null,
      mozjs_sym_undefined, mozjs_anon_sym_static, mozjs_anon_sym_get, mozjs_anon_sym_set]"

definition mozjs_small_run_17525 :: "nat list" where
  "mozjs_small_run_17525 =
    [25, 1578, 1, mozjs_anon_sym_LPAREN, 1580, 1, mozjs_anon_sym_LBRACK, 1582, 1,
      mozjs_anon_sym_DOT, 1594, 1, mozjs_sym_optional_chain, 1793, 1, mozjs_anon_sym_GT_GT, 1801,
      1, mozjs_anon_sym_PERCENT, 1803, 1, mozjs_anon_sym_STAR_STAR, 1809, 1,
      mozjs_anon_sym_AMP_AMP, 1811, 1, mozjs_anon_sym_PIPE_PIPE, 1813, 1, mozjs_anon_sym_AMP,
      1815, 1, mozjs_anon_sym_CARET, 1817, 1, mozjs_anon_sym_PIPE, 1823, 1,
      mozjs_anon_sym_QMARK_QMARK, 1825, 1, mozjs_sym__ternary_qmark, 639, 1, mozjs_sym_arguments,
      5, 2, mozjs_sym_html_comment, mozjs_sym_comment, 1600, 2, mozjs_anon_sym_PLUS_PLUS,
      mozjs_anon_sym_DASH_DASH, 1787, 2, mozjs_anon_sym_STAR, mozjs_anon_sym_SLASH, 1795, 2,
      mozjs_anon_sym_GT_GT_GT, mozjs_anon_sym_LT_LT, 1799, 2, mozjs_anon_sym_PLUS,
      mozjs_anon_sym_DASH, 1819, 2, mozjs_anon_sym_EQ_EQ, mozjs_anon_sym_BANG_EQ, 1821, 2,
      mozjs_anon_sym_EQ_EQ_EQ, mozjs_anon_sym_BANG_EQ_EQ, 1791, 3, mozjs_anon_sym_in,
      mozjs_anon_sym_LT, mozjs_anon_sym_GT, 1805, 3, mozjs_anon_sym_LT_EQ, mozjs_anon_sym_GT_EQ,
      mozjs_anon_sym_instanceof, 1807, 7, mozjs_anon_sym_COMMA, mozjs_anon_sym_RBRACE,
      mozjs_anon_sym_SEMI, mozjs_anon_sym_RPAREN, mozjs_anon_sym_COLON, mozjs_anon_sym_RBRACK,
      mozjs_anon_sym_BQUOTE]"

definition mozjs_small_run_17618 :: "nat list" where
  "mozjs_small_run_17618 =
    [10, 1578, 1, mozjs_anon_sym_LPAREN, 1580, 1, mozjs_anon_sym_LBRACK, 1582, 1,
      mozjs_anon_sym_DOT, 1594, 1, mozjs_sym_optional_chain, 1803, 1, mozjs_anon_sym_STAR_STAR,
      639, 1, mozjs_sym_arguments, 5, 2, mozjs_sym_html_comment, mozjs_sym_comment, 1600, 2,
      mozjs_anon_sym_PLUS_PLUS, mozjs_anon_sym_DASH_DASH, 1797, 12, mozjs_anon_sym_STAR,
      mozjs_anon_sym_in, mozjs_anon_sym_LT, mozjs_anon_sym_GT, mozjs_anon_sym_GT_GT,
      mozjs_anon_sym_AMP, mozjs_anon_sym_PIPE, mozjs_anon_sym_PLUS, mozjs_anon_sym_DASH,
      mozjs_anon_sym_SLASH, mozjs_anon_sym_EQ_EQ, mozjs_anon_sym_BANG_EQ, 1789, 20,
      mozjs_sym__ternary_qmark, mozjs_anon_sym_COMMA, mozjs_anon_sym_RBRACE, mozjs_anon_sym_SEMI,
      mozjs_anon_sym_RPAREN, mozjs_anon_sym_COLON, mozjs_anon_sym_RBRACK, mozjs_anon_sym_AMP_AMP,
      mozjs_anon_sym_PIPE_PIPE, mozjs_anon_sym_GT_GT_GT, mozjs_anon_sym_LT_LT,
      mozjs_anon_sym_CARET, mozjs_anon_sym_PERCENT, mozjs_anon_sym_LT_EQ,
      mozjs_anon_sym_EQ_EQ_EQ, mozjs_anon_sym_BANG_EQ_EQ, mozjs_anon_sym_GT_EQ,
      mozjs_anon_sym_QMARK_QMARK, mozjs_anon_sym_instanceof, mozjs_anon_sym_BQUOTE]"

definition mozjs_small_run_17681 :: "nat list" where
  "mozjs_small_run_17681 =
    [21, 1578, 1, mozjs_anon_sym_LPAREN, 1580, 1, mozjs_anon_sym_LBRACK, 1582, 1,
      mozjs_anon_sym_DOT, 1594, 1, mozjs_sym_optional_chain, 1793, 1, mozjs_anon_sym_GT_GT, 1801,
      1, mozjs_anon_sym_PERCENT, 1803, 1, mozjs_anon_sym_STAR_STAR, 1813, 1, mozjs_anon_sym_AMP,
      1815, 1, mozjs_anon_sym_CARET, 1817, 1, mozjs_anon_sym_PIPE, 639, 1, mozjs_sym_arguments,
      5, 2, mozjs_sym_html_comment, mozjs_sym_comment, 1600, 2, mozjs_anon_sym_PLUS_PLUS,
      mozjs_anon_sym_DASH_DASH, 1787, 2, mozjs_anon_sym_STAR, mozjs_anon_sym_SLASH, 1795, 2,
      mozjs_anon_sym_GT_GT_GT, mozjs_anon_sym_LT_LT, 1799, 2, mozjs_anon_sym_PLUS,
      mozjs_anon_sym_DASH, 1819, 2, mozjs_anon_sym_EQ_EQ, mozjs_anon_sym_BANG_EQ, 1821, 2,
      mozjs_anon_sym_EQ_EQ_EQ, mozjs_anon_sym_BANG_EQ_EQ, 1791, 3, mozjs_anon_sym_in,
      mozjs_anon_sym_LT, mozjs_anon_sym_GT, 1805, 3, mozjs_anon_sym_LT_EQ, mozjs_anon_sym_GT_EQ,
      mozjs_anon_sym_instanceof, 1789, 11, mozjs_sym__ternary_qmark, mozjs_anon_sym_COMMA,
      mozjs_anon_sym_RBRACE, mozjs_anon_sym_SEMI, mozjs_anon_sym_RPAREN, mozjs_anon_sym_COLON,
      mozjs_anon_sym_RBRACK, mozjs_anon_sym_AMP_AMP, mozjs_anon_sym_PIPE_PIPE,
      mozjs_anon_sym_QMARK_QMARK, mozjs_anon_sym_BQUOTE]"

definition mozjs_small_run_17766 :: "nat list" where
  "mozjs_small_run_17766 =
    [22, 1578, 1, mozjs_anon_sym_LPAREN, 1580, 1, mozjs_anon_sym_LBRACK, 1582, 1,
      mozjs_anon_sym_DOT, 1594, 1, mozjs_sym_optional_chain, 1793, 1, mozjs_anon_sym_GT_GT, 1801,
      1, mozjs_anon_sym_PERCENT, 1803, 1, mozjs_anon_sym_STAR_STAR, 1809, 1,
      mozjs_anon_sym_AMP_AMP, 1813, 1, mozjs_anon_sym_AMP, 1815, 1, mozjs_anon_sym_CARET, 1817,
      1, mozjs_anon_sym_PIPE, 639, 1, mozjs_sym_arguments, 5, 2, mozjs_sym_html_comment,
      mozjs_sym_comment, 1600, 2, mozjs_anon_sym_PLUS_PLUS, mozjs_anon_sym_DASH_DASH, 1787, 2,
      mozjs_anon_sym_STAR, mozjs_anon_sym_SLASH, 1795, 2, mozjs_anon_sym_GT_GT_GT,
      mozjs_anon_sym_LT_LT, 1799, 2, mozjs_anon_sym_PLUS, mozjs_anon_sym_DASH, 1819, 2,
      mozjs_anon_sym_EQ_EQ, mozjs_anon_sym_BANG_EQ, 1821, 2, mozjs_anon_sym_EQ_EQ_EQ,
      mozjs_anon_sym_BANG_EQ_EQ, 1791, 3, mozjs_anon_sym_in, mozjs_anon_sym_LT,
      mozjs_anon_sym_GT, 1805, 3, mozjs_anon_sym_LT_EQ, mozjs_anon_sym_GT_EQ,
      mozjs_anon_sym_instanceof, 1789, 10, mozjs_sym__ternary_qmark, mozjs_anon_sym_COMMA,
      mozjs_anon_sym_RBRACE, mozjs_anon_sym_SEMI, mozjs_anon_sym_RPAREN, mozjs_anon_sym_COLON,
      mozjs_anon_sym_RBRACK, mozjs_anon_sym_PIPE_PIPE, mozjs_anon_sym_QMARK_QMARK,
      mozjs_anon_sym_BQUOTE]"

definition mozjs_small_run_17853 :: "nat list" where
  "mozjs_small_run_17853 =
    [13, 1578, 1, mozjs_anon_sym_LPAREN, 1580, 1, mozjs_anon_sym_LBRACK, 1582, 1,
      mozjs_anon_sym_DOT, 1594, 1, mozjs_sym_optional_chain, 1801, 1, mozjs_anon_sym_PERCENT,
      1803, 1, mozjs_anon_sym_STAR_STAR, 639, 1, mozjs_sym_arguments, 5, 2,
      mozjs_sym_html_comment, mozjs_sym_comment, 1600, 2, mozjs_anon_sym_PLUS_PLUS,
      mozjs_anon_sym_DASH_DASH, 1787, 2, mozjs_anon_sym_STAR, mozjs_anon_sym_SLASH, 1799, 2,
      mozjs_anon_sym_PLUS, mozjs_anon_sym_DASH, 1797, 8, mozjs_anon_sym_in, mozjs_anon_sym_LT,
      mozjs_anon_sym_GT, mozjs_anon_sym_GT_GT, mozjs_anon_sym_AMP, mozjs_anon_sym_PIPE,
      mozjs_anon_sym_EQ_EQ, mozjs_anon_sym_BANG_EQ, 1789, 19, mozjs_sym__ternary_qmark,
      mozjs_anon_sym_COMMA, mozjs_anon_sym_RBRACE, mozjs_anon_sym_SEMI, mozjs_anon_sym_RPAREN,
      mozjs_anon_sym_COLON, mozjs_anon_sym_RBRACK, mozjs_anon_sym_AMP_AMP,
      mozjs_anon_sym_PIPE_PIPE, mozjs_anon_sym_GT_GT_GT, mozjs_anon_sym_LT_LT,
      mozjs_anon_sym_CARET, mozjs_anon_sym_LT_EQ, mozjs_anon_sym_EQ_EQ_EQ,
      mozjs_anon_sym_BANG_EQ_EQ, mozjs_anon_sym_GT_EQ, mozjs_anon_sym_QMARK_QMARK,
      mozjs_anon_sym_instanceof, mozjs_anon_sym_BQUOTE]"

definition mozjs_small_run_17922 :: "nat list" where
  "mozjs_small_run_17922 =
    [19, 1578, 1, mozjs_anon_sym_LPAREN, 1580, 1, mozjs_anon_sym_LBRACK, 1582, 1,
      mozjs_anon_sym_DOT, 1594, 1, mozjs_sym_optional_chain, 1793, 1, mozjs_anon_sym_GT_GT, 1801,
      1, mozjs_anon_sym_PERCENT, 1803, 1, mozjs_anon_sym_STAR_STAR, 639, 1, mozjs_sym_arguments,
      5, 2, mozjs_sym_html_comment, mozjs_sym_comment, 1600, 2, mozjs_anon_sym_PLUS_PLUS,
      mozjs_anon_sym_DASH_DASH, 1787, 2, mozjs_anon_sym_STAR, mozjs_anon_sym_SLASH, 1795, 2,
      mozjs_anon_sym_GT_GT_GT, mozjs_anon_sym_LT_LT, 1797, 2, mozjs_anon_sym_AMP,
      mozjs_anon_sym_PIPE, 1799, 2, mozjs_anon_sym_PLUS, mozjs_anon_sym_DASH, 1819, 2,
      mozjs_anon_sym_EQ_EQ, mozjs_anon_sym_BANG_EQ, 1821, 2, mozjs_anon_sym_EQ_EQ_EQ,
      mozjs_anon_sym_BANG_EQ_EQ, 1791, 3, mozjs_anon_sym_in, mozjs_anon_sym_LT,
      mozjs_anon_sym_GT, 1805, 3, mozjs_anon_sym_LT_EQ, mozjs_anon_sym_GT_EQ,
      mozjs_anon_sym_instanceof, 1789, 12, mozjs_sym__ternary_qmark, mozjs_anon_sym_COMMA,
      mozjs_anon_sym_RBRACE, mozjs_anon_sym_SEMI, mozjs_anon_sym_RPAREN, mozjs_anon_sym_COLON,
      mozjs_anon_sym_RBRACK, mozjs_anon_sym_AMP_AMP, mozjs_anon_sym_PIPE_PIPE,
      mozjs_anon_sym_CARET, mozjs_anon_sym_QMARK_QMARK, mozjs_anon_sym_BQUOTE]"

definition mozjs_small_run_18003 :: "nat list" where
  "mozjs_small_run_18003 =
    [20, 1578, 1, mozjs_anon_sym_LPAREN, 1580, 1, mozjs_anon_sym_LBRACK, 1582, 1,
      mozjs_anon_sym_DOT, 1594, 1, mozjs_sym_optional_chain, 1793, 1, mozjs_anon_sym_GT_GT, 1797,
      1, mozjs_anon_sym_PIPE, 1801, 1, mozjs_anon_sym_PERCENT, 1803, 1, mozjs_anon_sym_STAR_STAR,
      1813, 1, mozjs_anon_sym_AMP, 639, 1, mozjs_sym_arguments, 5, 2, mozjs_sym_html_comment,
      mozjs_sym_comment, 1600, 2, mozjs_anon_sym_PLUS_PLUS, mozjs_anon_sym_DASH_DASH, 1787, 2,
      mozjs_anon_sym_STAR, mozjs_anon_sym_SLASH, 1795, 2, mozjs_anon_sym_GT_GT_GT,
      mozjs_anon_sym_LT_LT, 1799, 2, mozjs_anon_sym_PLUS, mozjs_anon_sym_DASH, 1819, 2,
      mozjs_anon_sym_EQ_EQ, mozjs_anon_sym_BANG_EQ, 1821, 2, mozjs_anon_sym_EQ_EQ_EQ,
      mozjs_anon_sym_BANG_EQ_EQ, 1791, 3, mozjs_anon_sym_in, mozjs_anon_sym_LT,
      mozjs_anon_sym_GT, 1805, 3, mozjs_anon_sym_LT_EQ, mozjs_anon_sym_GT_EQ,
      mozjs_anon_sym_instanceof, 1789, 12, mozjs_sym__ternary_qmark, mozjs_anon_sym_COMMA,
      mozjs_anon_sym_RBRACE, mozjs_anon_sym_SEMI, mozjs_anon_sym_RPAREN, mozjs_anon_sym_COLON,
      mozjs_anon_sym_RBRACK, mozjs_anon_sym_AMP_AMP, mozjs_anon_sym_PIPE_PIPE,
      mozjs_anon_sym_CARET, mozjs_anon_sym_QMARK_QMARK, mozjs_anon_sym_BQUOTE]"

definition mozjs_small_run_18086 :: "nat list" where
  "mozjs_small_run_18086 =
    [21, 1578, 1, mozjs_anon_sym_LPAREN, 1580, 1, mozjs_anon_sym_LBRACK, 1582, 1,
      mozjs_anon_sym_DOT, 1594, 1, mozjs_sym_optional_chain, 1793, 1, mozjs_anon_sym_GT_GT, 1797,
      1, mozjs_anon_sym_PIPE, 1801, 1, mozjs_anon_sym_PERCENT, 1803, 1, mozjs_anon_sym_STAR_STAR,
      1813, 1, mozjs_anon_sym_AMP, 1815, 1, mozjs_anon_sym_CARET, 639, 1, mozjs_sym_arguments, 5,
      2, mozjs_sym_html_comment, mozjs_sym_comment, 1600, 2, mozjs_anon_sym_PLUS_PLUS,
      mozjs_anon_sym_DASH_DASH, 1787, 2, mozjs_anon_sym_STAR, mozjs_anon_sym_SLASH, 1795, 2,
      mozjs_anon_sym_GT_GT_GT, mozjs_anon_sym_LT_LT, 1799, 2, mozjs_anon_sym_PLUS,
      mozjs_anon_sym_DASH, 1819, 2, mozjs_anon_sym_EQ_EQ, mozjs_anon_sym_BANG_EQ, 1821, 2,
      mozjs_anon_sym_EQ_EQ_EQ, mozjs_anon_sym_BANG_EQ_EQ, 1791, 3, mozjs_anon_sym_in,
      mozjs_anon_sym_LT, mozjs_anon_sym_GT, 1805, 3, mozjs_anon_sym_LT_EQ, mozjs_anon_sym_GT_EQ,
      mozjs_anon_sym_instanceof, 1789, 11, mozjs_sym__ternary_qmark, mozjs_anon_sym_COMMA,
      mozjs_anon_sym_RBRACE, mozjs_anon_sym_SEMI, mozjs_anon_sym_RPAREN, mozjs_anon_sym_COLON,
      mozjs_anon_sym_RBRACK, mozjs_anon_sym_AMP_AMP, mozjs_anon_sym_PIPE_PIPE,
      mozjs_anon_sym_QMARK_QMARK, mozjs_anon_sym_BQUOTE]"

definition mozjs_small_run_18171 :: "nat list" where
  "mozjs_small_run_18171 =
    [25, 1578, 1, mozjs_anon_sym_LPAREN, 1580, 1, mozjs_anon_sym_LBRACK, 1582, 1,
      mozjs_anon_sym_DOT, 1594, 1, mozjs_sym_optional_chain, 1793, 1, mozjs_anon_sym_GT_GT, 1801,
      1, mozjs_anon_sym_PERCENT, 1803, 1, mozjs_anon_sym_STAR_STAR, 1809, 1,
      mozjs_anon_sym_AMP_AMP, 1811, 1, mozjs_anon_sym_PIPE_PIPE, 1813, 1, mozjs_anon_sym_AMP,
      1815, 1, mozjs_anon_sym_CARET, 1817, 1, mozjs_anon_sym_PIPE, 1823, 1,
      mozjs_anon_sym_QMARK_QMARK, 1825, 1, mozjs_sym__ternary_qmark, 639, 1, mozjs_sym_arguments,
      5, 2, mozjs_sym_html_comment, mozjs_sym_comment, 1600, 2, mozjs_anon_sym_PLUS_PLUS,
      mozjs_anon_sym_DASH_DASH, 1787, 2, mozjs_anon_sym_STAR, mozjs_anon_sym_SLASH, 1795, 2,
      mozjs_anon_sym_GT_GT_GT, mozjs_anon_sym_LT_LT, 1799, 2, mozjs_anon_sym_PLUS,
      mozjs_anon_sym_DASH, 1819, 2, mozjs_anon_sym_EQ_EQ, mozjs_anon_sym_BANG_EQ, 1821, 2,
      mozjs_anon_sym_EQ_EQ_EQ, mozjs_anon_sym_BANG_EQ_EQ, 1791, 3, mozjs_anon_sym_in,
      mozjs_anon_sym_LT, mozjs_anon_sym_GT, 1805, 3, mozjs_anon_sym_LT_EQ, mozjs_anon_sym_GT_EQ,
      mozjs_anon_sym_instanceof, 1720, 7, mozjs_anon_sym_COMMA, mozjs_anon_sym_RBRACE,
      mozjs_anon_sym_SEMI, mozjs_anon_sym_RPAREN, mozjs_anon_sym_COLON, mozjs_anon_sym_RBRACK,
      mozjs_anon_sym_BQUOTE]"

definition mozjs_small_run_18264 :: "nat list" where
  "mozjs_small_run_18264 =
    [12, 1578, 1, mozjs_anon_sym_LPAREN, 1580, 1, mozjs_anon_sym_LBRACK, 1582, 1,
      mozjs_anon_sym_DOT, 1594, 1, mozjs_sym_optional_chain, 1801, 1, mozjs_anon_sym_PERCENT,
      1803, 1, mozjs_anon_sym_STAR_STAR, 639, 1, mozjs_sym_arguments, 5, 2,
      mozjs_sym_html_comment, mozjs_sym_comment, 1600, 2, mozjs_anon_sym_PLUS_PLUS,
      mozjs_anon_sym_DASH_DASH, 1787, 2, mozjs_anon_sym_STAR, mozjs_anon_sym_SLASH, 1797, 10,
      mozjs_anon_sym_in, mozjs_anon_sym_LT, mozjs_anon_sym_GT, mozjs_anon_sym_GT_GT,
      mozjs_anon_sym_AMP, mozjs_anon_sym_PIPE, mozjs_anon_sym_PLUS, mozjs_anon_sym_DASH,
      mozjs_anon_sym_EQ_EQ, mozjs_anon_sym_BANG_EQ, 1789, 19, mozjs_sym__ternary_qmark,
      mozjs_anon_sym_COMMA, mozjs_anon_sym_RBRACE, mozjs_anon_sym_SEMI, mozjs_anon_sym_RPAREN,
      mozjs_anon_sym_COLON, mozjs_anon_sym_RBRACK, mozjs_anon_sym_AMP_AMP,
      mozjs_anon_sym_PIPE_PIPE, mozjs_anon_sym_GT_GT_GT, mozjs_anon_sym_LT_LT,
      mozjs_anon_sym_CARET, mozjs_anon_sym_LT_EQ, mozjs_anon_sym_EQ_EQ_EQ,
      mozjs_anon_sym_BANG_EQ_EQ, mozjs_anon_sym_GT_EQ, mozjs_anon_sym_QMARK_QMARK,
      mozjs_anon_sym_instanceof, mozjs_anon_sym_BQUOTE]"

definition mozjs_small_run_18331 :: "nat list" where
  "mozjs_small_run_18331 =
    [25, 1578, 1, mozjs_anon_sym_LPAREN, 1580, 1, mozjs_anon_sym_LBRACK, 1582, 1,
      mozjs_anon_sym_DOT, 1594, 1, mozjs_sym_optional_chain, 1793, 1, mozjs_anon_sym_GT_GT, 1801,
      1, mozjs_anon_sym_PERCENT, 1803, 1, mozjs_anon_sym_STAR_STAR, 1809, 1,
      mozjs_anon_sym_AMP_AMP, 1811, 1, mozjs_anon_sym_PIPE_PIPE, 1813, 1, mozjs_anon_sym_AMP,
      1815, 1, mozjs_anon_sym_CARET, 1817, 1, mozjs_anon_sym_PIPE, 1823, 1,
      mozjs_anon_sym_QMARK_QMARK, 1825, 1, mozjs_sym__ternary_qmark, 639, 1, mozjs_sym_arguments,
      5, 2, mozjs_sym_html_comment, mozjs_sym_comment, 1600, 2, mozjs_anon_sym_PLUS_PLUS,
      mozjs_anon_sym_DASH_DASH, 1787, 2, mozjs_anon_sym_STAR, mozjs_anon_sym_SLASH, 1795, 2,
      mozjs_anon_sym_GT_GT_GT, mozjs_anon_sym_LT_LT, 1799, 2, mozjs_anon_sym_PLUS,
      mozjs_anon_sym_DASH, 1819, 2, mozjs_anon_sym_EQ_EQ, mozjs_anon_sym_BANG_EQ, 1821, 2,
      mozjs_anon_sym_EQ_EQ_EQ, mozjs_anon_sym_BANG_EQ_EQ, 1791, 3, mozjs_anon_sym_in,
      mozjs_anon_sym_LT, mozjs_anon_sym_GT, 1805, 3, mozjs_anon_sym_LT_EQ, mozjs_anon_sym_GT_EQ,
      mozjs_anon_sym_instanceof, 1630, 7, mozjs_anon_sym_COMMA, mozjs_anon_sym_RBRACE,
      mozjs_anon_sym_SEMI, mozjs_anon_sym_RPAREN, mozjs_anon_sym_COLON, mozjs_anon_sym_RBRACK,
      mozjs_anon_sym_BQUOTE]"

definition mozjs_small_run_18424 :: "nat list" where
  "mozjs_small_run_18424 =
    [10, 1578, 1, mozjs_anon_sym_LPAREN, 1580, 1, mozjs_anon_sym_LBRACK, 1582, 1,
      mozjs_anon_sym_DOT, 1594, 1, mozjs_sym_optional_chain, 1803, 1, mozjs_anon_sym_STAR_STAR,
      639, 1, mozjs_sym_arguments, 5, 2, mozjs_sym_html_comment, mozjs_sym_comment, 1600, 2,
      mozjs_anon_sym_PLUS_PLUS, mozjs_anon_sym_DASH_DASH, 1797, 12, mozjs_anon_sym_STAR,
      mozjs_anon_sym_in, mozjs_anon_sym_LT, mozjs_anon_sym_GT, mozjs_anon_sym_GT_GT,
      mozjs_anon_sym_AMP, mozjs_anon_sym_PIPE, mozjs_anon_sym_PLUS, mozjs_anon_sym_DASH,
      mozjs_anon_sym_SLASH, mozjs_anon_sym_EQ_EQ, mozjs_anon_sym_BANG_EQ, 1789, 20,
      mozjs_sym__ternary_qmark, mozjs_anon_sym_COMMA, mozjs_anon_sym_RBRACE, mozjs_anon_sym_SEMI,
      mozjs_anon_sym_RPAREN, mozjs_anon_sym_COLON, mozjs_anon_sym_RBRACK, mozjs_anon_sym_AMP_AMP,
      mozjs_anon_sym_PIPE_PIPE, mozjs_anon_sym_GT_GT_GT, mozjs_anon_sym_LT_LT,
      mozjs_anon_sym_CARET, mozjs_anon_sym_PERCENT, mozjs_anon_sym_LT_EQ,
      mozjs_anon_sym_EQ_EQ_EQ, mozjs_anon_sym_BANG_EQ_EQ, mozjs_anon_sym_GT_EQ,
      mozjs_anon_sym_QMARK_QMARK, mozjs_anon_sym_instanceof, mozjs_anon_sym_BQUOTE]"

definition mozjs_small_run_18487 :: "nat list" where
  "mozjs_small_run_18487 =
    [3, 5, 2, mozjs_sym_html_comment, mozjs_sym_comment, 1239, 15, mozjs_anon_sym_LBRACE,
      mozjs_anon_sym_LPAREN, mozjs_anon_sym_SEMI, mozjs_anon_sym_LBRACK, mozjs_anon_sym_LT,
      mozjs_anon_sym_DQUOTE, mozjs_anon_sym_SQUOTE, mozjs_anon_sym_BANG, mozjs_anon_sym_TILDE,
      mozjs_anon_sym_PLUS_PLUS, mozjs_anon_sym_DASH_DASH, mozjs_anon_sym_BQUOTE,
      mozjs_sym_number, mozjs_sym_private_property_identifier, mozjs_anon_sym_AT, 1241, 25,
      mozjs_anon_sym_export, mozjs_anon_sym_import, mozjs_anon_sym_let, mozjs_anon_sym_await,
      mozjs_anon_sym_yield, mozjs_anon_sym_class, mozjs_anon_sym_async, mozjs_anon_sym_function,
      mozjs_anon_sym_new, mozjs_anon_sym_PLUS, mozjs_anon_sym_DASH, mozjs_anon_sym_SLASH,
      mozjs_anon_sym_typeof, mozjs_anon_sym_void, mozjs_anon_sym_delete, mozjs_sym_identifier,
      mozjs_sym_this, mozjs_sym_super, mozjs_sym_true, mozjs_sym_false, mozjs_sym_null,
      mozjs_sym_undefined, mozjs_anon_sym_static, mozjs_anon_sym_get, mozjs_anon_sym_set]"

definition mozjs_small_run_18536 :: "nat list" where
  "mozjs_small_run_18536 =
    [23, 1578, 1, mozjs_anon_sym_LPAREN, 1580, 1, mozjs_anon_sym_LBRACK, 1582, 1,
      mozjs_anon_sym_DOT, 1594, 1, mozjs_sym_optional_chain, 1793, 1, mozjs_anon_sym_GT_GT, 1801,
      1, mozjs_anon_sym_PERCENT, 1803, 1, mozjs_anon_sym_STAR_STAR, 1809, 1,
      mozjs_anon_sym_AMP_AMP, 1811, 1, mozjs_anon_sym_PIPE_PIPE, 1813, 1, mozjs_anon_sym_AMP,
      1815, 1, mozjs_anon_sym_CARET, 1817, 1, mozjs_anon_sym_PIPE, 639, 1, mozjs_sym_arguments,
      5, 2, mozjs_sym_html_comment, mozjs_sym_comment, 1600, 2, mozjs_anon_sym_PLUS_PLUS,
      mozjs_anon_sym_DASH_DASH, 1787, 2, mozjs_anon_sym_STAR, mozjs_anon_sym_SLASH, 1795, 2,
      mozjs_anon_sym_GT_GT_GT, mozjs_anon_sym_LT_LT, 1799, 2, mozjs_anon_sym_PLUS,
      mozjs_anon_sym_DASH, 1819, 2, mozjs_anon_sym_EQ_EQ, mozjs_anon_sym_BANG_EQ, 1821, 2,
      mozjs_anon_sym_EQ_EQ_EQ, mozjs_anon_sym_BANG_EQ_EQ, 1791, 3, mozjs_anon_sym_in,
      mozjs_anon_sym_LT, mozjs_anon_sym_GT, 1805, 3, mozjs_anon_sym_LT_EQ, mozjs_anon_sym_GT_EQ,
      mozjs_anon_sym_instanceof, 1789, 9, mozjs_sym__ternary_qmark, mozjs_anon_sym_COMMA,
      mozjs_anon_sym_RBRACE, mozjs_anon_sym_SEMI, mozjs_anon_sym_RPAREN, mozjs_anon_sym_COLON,
      mozjs_anon_sym_RBRACK, mozjs_anon_sym_QMARK_QMARK, mozjs_anon_sym_BQUOTE]"

definition mozjs_small_run_18625 :: "nat list" where
  "mozjs_small_run_18625 =
    [10, 83, 1, mozjs_anon_sym_BQUOTE, 1827, 1, mozjs_anon_sym_LPAREN, 1829, 1,
      mozjs_anon_sym_LBRACK, 1831, 1, mozjs_anon_sym_DOT, 1833, 1, mozjs_sym_optional_chain, 705,
      1, mozjs_sym_arguments, 760, 1, mozjs_sym_template_string, 5, 2, mozjs_sym_html_comment,
      mozjs_sym_comment, 1574, 12, mozjs_anon_sym_STAR, mozjs_anon_sym_in, mozjs_anon_sym_LT,
      mozjs_anon_sym_GT, mozjs_anon_sym_GT_GT, mozjs_anon_sym_AMP, mozjs_anon_sym_PIPE,
      mozjs_anon_sym_PLUS, mozjs_anon_sym_DASH, mozjs_anon_sym_SLASH, mozjs_anon_sym_EQ_EQ,
      mozjs_anon_sym_BANG_EQ, 1576, 21, mozjs_sym__automatic_semicolon, mozjs_sym__ternary_qmark,
      mozjs_anon_sym_COMMA, mozjs_anon_sym_RBRACE, mozjs_anon_sym_of, mozjs_anon_sym_SEMI,
      mozjs_anon_sym_AMP_AMP, mozjs_anon_sym_PIPE_PIPE, mozjs_anon_sym_GT_GT_GT,
      mozjs_anon_sym_LT_LT, mozjs_anon_sym_CARET, mozjs_anon_sym_PERCENT,
      mozjs_anon_sym_STAR_STAR, mozjs_anon_sym_LT_EQ, mozjs_anon_sym_EQ_EQ_EQ,
      mozjs_anon_sym_BANG_EQ_EQ, mozjs_anon_sym_GT_EQ, mozjs_anon_sym_QMARK_QMARK,
      mozjs_anon_sym_instanceof, mozjs_anon_sym_PLUS_PLUS, mozjs_anon_sym_DASH_DASH]"

definition mozjs_small_run_18688 :: "nat list" where
  "mozjs_small_run_18688 =
    [25, 1578, 1, mozjs_anon_sym_LPAREN, 1580, 1, mozjs_anon_sym_LBRACK, 1582, 1,
      mozjs_anon_sym_DOT, 1594, 1, mozjs_sym_optional_chain, 1793, 1, mozjs_anon_sym_GT_GT, 1801,
      1, mozjs_anon_sym_PERCENT, 1803, 1, mozjs_anon_sym_STAR_STAR, 1809, 1,
      mozjs_anon_sym_AMP_AMP, 1811, 1, mozjs_anon_sym_PIPE_PIPE, 1813, 1, mozjs_anon_sym_AMP,
      1815, 1, mozjs_anon_sym_CARET, 1817, 1, mozjs_anon_sym_PIPE, 1823, 1,
      mozjs_anon_sym_QMARK_QMARK, 1825, 1, mozjs_sym__ternary_qmark, 639, 1, mozjs_sym_arguments,
      5, 2, mozjs_sym_html_comment, mozjs_sym_comment, 1600, 2, mozjs_anon_sym_PLUS_PLUS,
      mozjs_anon_sym_DASH_DASH, 1787, 2, mozjs_anon_sym_STAR, mozjs_anon_sym_SLASH, 1795, 2,
      mozjs_anon_sym_GT_GT_GT, mozjs_anon_sym_LT_LT, 1799, 2, mozjs_anon_sym_PLUS,
      mozjs_anon_sym_DASH, 1819, 2, mozjs_anon_sym_EQ_EQ, mozjs_anon_sym_BANG_EQ, 1821, 2,
      mozjs_anon_sym_EQ_EQ_EQ, mozjs_anon_sym_BANG_EQ_EQ, 1791, 3, mozjs_anon_sym_in,
      mozjs_anon_sym_LT, mozjs_anon_sym_GT, 1805, 3, mozjs_anon_sym_LT_EQ, mozjs_anon_sym_GT_EQ,
      mozjs_anon_sym_instanceof, 1835, 7, mozjs_anon_sym_COMMA, mozjs_anon_sym_RBRACE,
      mozjs_anon_sym_SEMI, mozjs_anon_sym_RPAREN, mozjs_anon_sym_COLON, mozjs_anon_sym_RBRACK,
      mozjs_anon_sym_BQUOTE]"

definition mozjs_small_run_18781 :: "nat list" where
  "mozjs_small_run_18781 =
    [25, 1578, 1, mozjs_anon_sym_LPAREN, 1580, 1, mozjs_anon_sym_LBRACK, 1582, 1,
      mozjs_anon_sym_DOT, 1594, 1, mozjs_sym_optional_chain, 1793, 1, mozjs_anon_sym_GT_GT, 1801,
      1, mozjs_anon_sym_PERCENT, 1803, 1, mozjs_anon_sym_STAR_STAR, 1809, 1,
      mozjs_anon_sym_AMP_AMP, 1811, 1, mozjs_anon_sym_PIPE_PIPE, 1813, 1, mozjs_anon_sym_AMP,
      1815, 1, mozjs_anon_sym_CARET, 1817, 1, mozjs_anon_sym_PIPE, 1823, 1,
      mozjs_anon_sym_QMARK_QMARK, 1825, 1, mozjs_sym__ternary_qmark, 639, 1, mozjs_sym_arguments,
      5, 2, mozjs_sym_html_comment, mozjs_sym_comment, 1600, 2, mozjs_anon_sym_PLUS_PLUS,
      mozjs_anon_sym_DASH_DASH, 1787, 2, mozjs_anon_sym_STAR, mozjs_anon_sym_SLASH, 1795, 2,
      mozjs_anon_sym_GT_GT_GT, mozjs_anon_sym_LT_LT, 1799, 2, mozjs_anon_sym_PLUS,
      mozjs_anon_sym_DASH, 1819, 2, mozjs_anon_sym_EQ_EQ, mozjs_anon_sym_BANG_EQ, 1821, 2,
      mozjs_anon_sym_EQ_EQ_EQ, mozjs_anon_sym_BANG_EQ_EQ, 1791, 3, mozjs_anon_sym_in,
      mozjs_anon_sym_LT, mozjs_anon_sym_GT, 1805, 3, mozjs_anon_sym_LT_EQ, mozjs_anon_sym_GT_EQ,
      mozjs_anon_sym_instanceof, 1837, 7, mozjs_anon_sym_COMMA, mozjs_anon_sym_RBRACE,
      mozjs_anon_sym_SEMI, mozjs_anon_sym_RPAREN, mozjs_anon_sym_COLON, mozjs_anon_sym_RBRACK,
      mozjs_anon_sym_BQUOTE]"

definition mozjs_small_run_18874 :: "nat list" where
  "mozjs_small_run_18874 =
    [25, 1578, 1, mozjs_anon_sym_LPAREN, 1580, 1, mozjs_anon_sym_LBRACK, 1582, 1,
      mozjs_anon_sym_DOT, 1594, 1, mozjs_sym_optional_chain, 1793, 1, mozjs_anon_sym_GT_GT, 1801,
      1, mozjs_anon_sym_PERCENT, 1803, 1, mozjs_anon_sym_STAR_STAR, 1809, 1,
      mozjs_anon_sym_AMP_AMP, 1811, 1, mozjs_anon_sym_PIPE_PIPE, 1813, 1, mozjs_anon_sym_AMP,
      1815, 1, mozjs_anon_sym_CARET, 1817, 1, mozjs_anon_sym_PIPE, 1823, 1,
      mozjs_anon_sym_QMARK_QMARK, 1825, 1, mozjs_sym__ternary_qmark, 639, 1, mozjs_sym_arguments,
      5, 2, mozjs_sym_html_comment, mozjs_sym_comment, 1600, 2, mozjs_anon_sym_PLUS_PLUS,
      mozjs_anon_sym_DASH_DASH, 1787, 2, mozjs_anon_sym_STAR, mozjs_anon_sym_SLASH, 1795, 2,
      mozjs_anon_sym_GT_GT_GT, mozjs_anon_sym_LT_LT, 1799, 2, mozjs_anon_sym_PLUS,
      mozjs_anon_sym_DASH, 1819, 2, mozjs_anon_sym_EQ_EQ, mozjs_anon_sym_BANG_EQ, 1821, 2,
      mozjs_anon_sym_EQ_EQ_EQ, mozjs_anon_sym_BANG_EQ_EQ, 1791, 3, mozjs_anon_sym_in,
      mozjs_anon_sym_LT, mozjs_anon_sym_GT, 1805, 3, mozjs_anon_sym_LT_EQ, mozjs_anon_sym_GT_EQ,
      mozjs_anon_sym_instanceof, 1839, 7, mozjs_anon_sym_COMMA, mozjs_anon_sym_RBRACE,
      mozjs_anon_sym_SEMI, mozjs_anon_sym_RPAREN, mozjs_anon_sym_COLON, mozjs_anon_sym_RBRACK,
      mozjs_anon_sym_BQUOTE]"

definition mozjs_small_run_18967 :: "nat list" where
  "mozjs_small_run_18967 =
    [25, 1578, 1, mozjs_anon_sym_LPAREN, 1580, 1, mozjs_anon_sym_LBRACK, 1582, 1,
      mozjs_anon_sym_DOT, 1594, 1, mozjs_sym_optional_chain, 1793, 1, mozjs_anon_sym_GT_GT, 1801,
      1, mozjs_anon_sym_PERCENT, 1803, 1, mozjs_anon_sym_STAR_STAR, 1809, 1,
      mozjs_anon_sym_AMP_AMP, 1811, 1, mozjs_anon_sym_PIPE_PIPE, 1813, 1, mozjs_anon_sym_AMP,
      1815, 1, mozjs_anon_sym_CARET, 1817, 1, mozjs_anon_sym_PIPE, 1823, 1,
      mozjs_anon_sym_QMARK_QMARK, 1825, 1, mozjs_sym__ternary_qmark, 639, 1, mozjs_sym_arguments,
      5, 2, mozjs_sym_html_comment, mozjs_sym_comment, 1600, 2, mozjs_anon_sym_PLUS_PLUS,
      mozjs_anon_sym_DASH_DASH, 1787, 2, mozjs_anon_sym_STAR, mozjs_anon_sym_SLASH, 1795, 2,
      mozjs_anon_sym_GT_GT_GT, mozjs_anon_sym_LT_LT, 1799, 2, mozjs_anon_sym_PLUS,
      mozjs_anon_sym_DASH, 1819, 2, mozjs_anon_sym_EQ_EQ, mozjs_anon_sym_BANG_EQ, 1821, 2,
      mozjs_anon_sym_EQ_EQ_EQ, mozjs_anon_sym_BANG_EQ_EQ, 1791, 3, mozjs_anon_sym_in,
      mozjs_anon_sym_LT, mozjs_anon_sym_GT, 1805, 3, mozjs_anon_sym_LT_EQ, mozjs_anon_sym_GT_EQ,
      mozjs_anon_sym_instanceof, 1841, 7, mozjs_anon_sym_COMMA, mozjs_anon_sym_RBRACE,
      mozjs_anon_sym_SEMI, mozjs_anon_sym_RPAREN, mozjs_anon_sym_COLON, mozjs_anon_sym_RBRACK,
      mozjs_anon_sym_BQUOTE]"

definition mozjs_small_run_19060 :: "nat list" where
  "mozjs_small_run_19060 =
    [25, 1578, 1, mozjs_anon_sym_LPAREN, 1580, 1, mozjs_anon_sym_LBRACK, 1582, 1,
      mozjs_anon_sym_DOT, 1594, 1, mozjs_sym_optional_chain, 1793, 1, mozjs_anon_sym_GT_GT, 1801,
      1, mozjs_anon_sym_PERCENT, 1803, 1, mozjs_anon_sym_STAR_STAR, 1809, 1,
      mozjs_anon_sym_AMP_AMP, 1811, 1, mozjs_anon_sym_PIPE_PIPE, 1813, 1, mozjs_anon_sym_AMP,
      1815, 1, mozjs_anon_sym_CARET, 1817, 1, mozjs_anon_sym_PIPE, 1823, 1,
      mozjs_anon_sym_QMARK_QMARK, 1825, 1, mozjs_sym__ternary_qmark, 639, 1, mozjs_sym_arguments,
      5, 2, mozjs_sym_html_comment, mozjs_sym_comment, 1600, 2, mozjs_anon_sym_PLUS_PLUS,
      mozjs_anon_sym_DASH_DASH, 1787, 2, mozjs_anon_sym_STAR, mozjs_anon_sym_SLASH, 1795, 2,
      mozjs_anon_sym_GT_GT_GT, mozjs_anon_sym_LT_LT, 1799, 2, mozjs_anon_sym_PLUS,
      mozjs_anon_sym_DASH, 1819, 2, mozjs_anon_sym_EQ_EQ, mozjs_anon_sym_BANG_EQ, 1821, 2,
      mozjs_anon_sym_EQ_EQ_EQ, mozjs_anon_sym_BANG_EQ_EQ, 1791, 3, mozjs_anon_sym_in,
      mozjs_anon_sym_LT, mozjs_anon_sym_GT, 1805, 3, mozjs_anon_sym_LT_EQ, mozjs_anon_sym_GT_EQ,
      mozjs_anon_sym_instanceof, 1752, 7, mozjs_anon_sym_COMMA, mozjs_anon_sym_RBRACE,
      mozjs_anon_sym_SEMI, mozjs_anon_sym_RPAREN, mozjs_anon_sym_COLON, mozjs_anon_sym_RBRACK,
      mozjs_anon_sym_BQUOTE]"

definition mozjs_small_run_19153 :: "nat list" where
  "mozjs_small_run_19153 =
    [25, 1578, 1, mozjs_anon_sym_LPAREN, 1580, 1, mozjs_anon_sym_LBRACK, 1582, 1,
      mozjs_anon_sym_DOT, 1594, 1, mozjs_sym_optional_chain, 1793, 1, mozjs_anon_sym_GT_GT, 1801,
      1, mozjs_anon_sym_PERCENT, 1803, 1, mozjs_anon_sym_STAR_STAR, 1809, 1,
      mozjs_anon_sym_AMP_AMP, 1811, 1, mozjs_anon_sym_PIPE_PIPE, 1813, 1, mozjs_anon_sym_AMP,
      1815, 1, mozjs_anon_sym_CARET, 1817, 1, mozjs_anon_sym_PIPE, 1823, 1,
      mozjs_anon_sym_QMARK_QMARK, 1825, 1, mozjs_sym__ternary_qmark, 639, 1, mozjs_sym_arguments,
      5, 2, mozjs_sym_html_comment, mozjs_sym_comment, 1600, 2, mozjs_anon_sym_PLUS_PLUS,
      mozjs_anon_sym_DASH_DASH, 1787, 2, mozjs_anon_sym_STAR, mozjs_anon_sym_SLASH, 1795, 2,
      mozjs_anon_sym_GT_GT_GT, mozjs_anon_sym_LT_LT, 1799, 2, mozjs_anon_sym_PLUS,
      mozjs_anon_sym_DASH, 1819, 2, mozjs_anon_sym_EQ_EQ, mozjs_anon_sym_BANG_EQ, 1821, 2,
      mozjs_anon_sym_EQ_EQ_EQ, mozjs_anon_sym_BANG_EQ_EQ, 1791, 3, mozjs_anon_sym_in,
      mozjs_anon_sym_LT, mozjs_anon_sym_GT, 1805, 3, mozjs_anon_sym_LT_EQ, mozjs_anon_sym_GT_EQ,
      mozjs_anon_sym_instanceof, 1736, 7, mozjs_anon_sym_COMMA, mozjs_anon_sym_RBRACE,
      mozjs_anon_sym_SEMI, mozjs_anon_sym_RPAREN, mozjs_anon_sym_COLON, mozjs_anon_sym_RBRACK,
      mozjs_anon_sym_BQUOTE]"

definition mozjs_small_run_19246 :: "nat list" where
  "mozjs_small_run_19246 =
    [25, 1578, 1, mozjs_anon_sym_LPAREN, 1580, 1, mozjs_anon_sym_LBRACK, 1582, 1,
      mozjs_anon_sym_DOT, 1594, 1, mozjs_sym_optional_chain, 1793, 1, mozjs_anon_sym_GT_GT, 1801,
      1, mozjs_anon_sym_PERCENT, 1803, 1, mozjs_anon_sym_STAR_STAR, 1809, 1,
      mozjs_anon_sym_AMP_AMP, 1811, 1, mozjs_anon_sym_PIPE_PIPE, 1813, 1, mozjs_anon_sym_AMP,
      1815, 1, mozjs_anon_sym_CARET, 1817, 1, mozjs_anon_sym_PIPE, 1823, 1,
      mozjs_anon_sym_QMARK_QMARK, 1825, 1, mozjs_sym__ternary_qmark, 639, 1, mozjs_sym_arguments,
      5, 2, mozjs_sym_html_comment, mozjs_sym_comment, 1600, 2, mozjs_anon_sym_PLUS_PLUS,
      mozjs_anon_sym_DASH_DASH, 1787, 2, mozjs_anon_sym_STAR, mozjs_anon_sym_SLASH, 1795, 2,
      mozjs_anon_sym_GT_GT_GT, mozjs_anon_sym_LT_LT, 1799, 2, mozjs_anon_sym_PLUS,
      mozjs_anon_sym_DASH, 1819, 2, mozjs_anon_sym_EQ_EQ, mozjs_anon_sym_BANG_EQ, 1821, 2,
      mozjs_anon_sym_EQ_EQ_EQ, mozjs_anon_sym_BANG_EQ_EQ, 1791, 3, mozjs_anon_sym_in,
      mozjs_anon_sym_LT, mozjs_anon_sym_GT, 1805, 3, mozjs_anon_sym_LT_EQ, mozjs_anon_sym_GT_EQ,
      mozjs_anon_sym_instanceof, 1708, 7, mozjs_anon_sym_COMMA, mozjs_anon_sym_RBRACE,
      mozjs_anon_sym_SEMI, mozjs_anon_sym_RPAREN, mozjs_anon_sym_COLON, mozjs_anon_sym_RBRACK,
      mozjs_anon_sym_BQUOTE]"

definition mozjs_small_run_19339 :: "nat list" where
  "mozjs_small_run_19339 =
    [4, 1485, 1, mozjs_anon_sym_EQ, 5, 2, mozjs_sym_html_comment, mozjs_sym_comment, 1435, 12,
      mozjs_anon_sym_STAR, mozjs_anon_sym_in, mozjs_anon_sym_LT, mozjs_anon_sym_GT,
      mozjs_anon_sym_GT_GT, mozjs_anon_sym_AMP, mozjs_anon_sym_PIPE, mozjs_anon_sym_PLUS,
      mozjs_anon_sym_DASH, mozjs_anon_sym_SLASH, mozjs_anon_sym_EQ_EQ, mozjs_anon_sym_BANG_EQ,
      1437, 27, mozjs_sym__ternary_qmark, mozjs_anon_sym_COMMA, mozjs_anon_sym_RBRACE,
      mozjs_anon_sym_LPAREN, mozjs_anon_sym_SEMI, mozjs_anon_sym_RPAREN, mozjs_anon_sym_COLON,
      mozjs_anon_sym_LBRACK, mozjs_anon_sym_RBRACK, mozjs_anon_sym_DOT, mozjs_sym_optional_chain,
      mozjs_anon_sym_AMP_AMP, mozjs_anon_sym_PIPE_PIPE, mozjs_anon_sym_GT_GT_GT,
      mozjs_anon_sym_LT_LT, mozjs_anon_sym_CARET, mozjs_anon_sym_PERCENT,
      mozjs_anon_sym_STAR_STAR, mozjs_anon_sym_LT_EQ, mozjs_anon_sym_EQ_EQ_EQ,
      mozjs_anon_sym_BANG_EQ_EQ, mozjs_anon_sym_GT_EQ, mozjs_anon_sym_QMARK_QMARK,
      mozjs_anon_sym_instanceof, mozjs_anon_sym_PLUS_PLUS, mozjs_anon_sym_DASH_DASH,
      mozjs_anon_sym_BQUOTE]"

definition mozjs_small_run_19390 :: "nat list" where
  "mozjs_small_run_19390 =
    [3, 5, 2, mozjs_sym_html_comment, mozjs_sym_comment, 1367, 15, mozjs_anon_sym_LBRACE,
      mozjs_anon_sym_LPAREN, mozjs_anon_sym_SEMI, mozjs_anon_sym_LBRACK, mozjs_anon_sym_LT,
      mozjs_anon_sym_DQUOTE, mozjs_anon_sym_SQUOTE, mozjs_anon_sym_BANG, mozjs_anon_sym_TILDE,
      mozjs_anon_sym_PLUS_PLUS, mozjs_anon_sym_DASH_DASH, mozjs_anon_sym_BQUOTE,
      mozjs_sym_number, mozjs_sym_private_property_identifier, mozjs_anon_sym_AT, 1369, 25,
      mozjs_anon_sym_export, mozjs_anon_sym_import, mozjs_anon_sym_let, mozjs_anon_sym_await,
      mozjs_anon_sym_yield, mozjs_anon_sym_class, mozjs_anon_sym_async, mozjs_anon_sym_function,
      mozjs_anon_sym_new, mozjs_anon_sym_PLUS, mozjs_anon_sym_DASH, mozjs_anon_sym_SLASH,
      mozjs_anon_sym_typeof, mozjs_anon_sym_void, mozjs_anon_sym_delete, mozjs_sym_identifier,
      mozjs_sym_this, mozjs_sym_super, mozjs_sym_true, mozjs_sym_false, mozjs_sym_null,
      mozjs_sym_undefined, mozjs_anon_sym_static, mozjs_anon_sym_get, mozjs_anon_sym_set]"

definition mozjs_small_run_19439 :: "nat list" where
  "mozjs_small_run_19439 =
    [15, 1578, 1, mozjs_anon_sym_LPAREN, 1580, 1, mozjs_anon_sym_LBRACK, 1582, 1,
      mozjs_anon_sym_DOT, 1594, 1, mozjs_sym_optional_chain, 1793, 1, mozjs_anon_sym_GT_GT, 1801,
      1, mozjs_anon_sym_PERCENT, 1803, 1, mozjs_anon_sym_STAR_STAR, 639, 1, mozjs_sym_arguments,
      5, 2, mozjs_sym_html_comment, mozjs_sym_comment, 1600, 2, mozjs_anon_sym_PLUS_PLUS,
      mozjs_anon_sym_DASH_DASH, 1787, 2, mozjs_anon_sym_STAR, mozjs_anon_sym_SLASH, 1795, 2,
      mozjs_anon_sym_GT_GT_GT, mozjs_anon_sym_LT_LT, 1799, 2, mozjs_anon_sym_PLUS,
      mozjs_anon_sym_DASH, 1797, 7, mozjs_anon_sym_in, mozjs_anon_sym_LT, mozjs_anon_sym_GT,
      mozjs_anon_sym_AMP, mozjs_anon_sym_PIPE, mozjs_anon_sym_EQ_EQ, mozjs_anon_sym_BANG_EQ,
      1789, 17, mozjs_sym__ternary_qmark, mozjs_anon_sym_COMMA, mozjs_anon_sym_RBRACE,
      mozjs_anon_sym_SEMI, mozjs_anon_sym_RPAREN, mozjs_anon_sym_COLON, mozjs_anon_sym_RBRACK,
      mozjs_anon_sym_AMP_AMP, mozjs_anon_sym_PIPE_PIPE, mozjs_anon_sym_CARET,
      mozjs_anon_sym_LT_EQ, mozjs_anon_sym_EQ_EQ_EQ, mozjs_anon_sym_BANG_EQ_EQ,
      mozjs_anon_sym_GT_EQ, mozjs_anon_sym_QMARK_QMARK, mozjs_anon_sym_instanceof,
      mozjs_anon_sym_BQUOTE]"

definition mozjs_small_run_19512 :: "nat list" where
  "mozjs_small_run_19512 =
    [7, 83, 1, mozjs_anon_sym_BQUOTE, 1827, 1, mozjs_anon_sym_LPAREN, 705, 1,
      mozjs_sym_arguments, 760, 1, mozjs_sym_template_string, 5, 2, mozjs_sym_html_comment,
      mozjs_sym_comment, 1574, 12, mozjs_anon_sym_STAR, mozjs_anon_sym_in, mozjs_anon_sym_LT,
      mozjs_anon_sym_GT, mozjs_anon_sym_GT_GT, mozjs_anon_sym_AMP, mozjs_anon_sym_PIPE,
      mozjs_anon_sym_PLUS, mozjs_anon_sym_DASH, mozjs_anon_sym_SLASH, mozjs_anon_sym_EQ_EQ,
      mozjs_anon_sym_BANG_EQ, 1576, 24, mozjs_sym__automatic_semicolon, mozjs_sym__ternary_qmark,
      mozjs_anon_sym_COMMA, mozjs_anon_sym_RBRACE, mozjs_anon_sym_of, mozjs_anon_sym_SEMI,
      mozjs_anon_sym_LBRACK, mozjs_anon_sym_DOT, mozjs_sym_optional_chain,
      mozjs_anon_sym_AMP_AMP, mozjs_anon_sym_PIPE_PIPE, mozjs_anon_sym_GT_GT_GT,
      mozjs_anon_sym_LT_LT, mozjs_anon_sym_CARET, mozjs_anon_sym_PERCENT,
      mozjs_anon_sym_STAR_STAR, mozjs_anon_sym_LT_EQ, mozjs_anon_sym_EQ_EQ_EQ,
      mozjs_anon_sym_BANG_EQ_EQ, mozjs_anon_sym_GT_EQ, mozjs_anon_sym_QMARK_QMARK,
      mozjs_anon_sym_instanceof, mozjs_anon_sym_PLUS_PLUS, mozjs_anon_sym_DASH_DASH]"

definition mozjs_small_run_19569 :: "nat list" where
  "mozjs_small_run_19569 =
    [25, 1578, 1, mozjs_anon_sym_LPAREN, 1580, 1, mozjs_anon_sym_LBRACK, 1582, 1,
      mozjs_anon_sym_DOT, 1594, 1, mozjs_sym_optional_chain, 1793, 1, mozjs_anon_sym_GT_GT, 1801,
      1, mozjs_anon_sym_PERCENT, 1803, 1, mozjs_anon_sym_STAR_STAR, 1809, 1,
      mozjs_anon_sym_AMP_AMP, 1811, 1, mozjs_anon_sym_PIPE_PIPE, 1813, 1, mozjs_anon_sym_AMP,
      1815, 1, mozjs_anon_sym_CARET, 1817, 1, mozjs_anon_sym_PIPE, 1823, 1,
      mozjs_anon_sym_QMARK_QMARK, 1825, 1, mozjs_sym__ternary_qmark, 639, 1, mozjs_sym_arguments,
      5, 2, mozjs_sym_html_comment, mozjs_sym_comment, 1600, 2, mozjs_anon_sym_PLUS_PLUS,
      mozjs_anon_sym_DASH_DASH, 1787, 2, mozjs_anon_sym_STAR, mozjs_anon_sym_SLASH, 1795, 2,
      mozjs_anon_sym_GT_GT_GT, mozjs_anon_sym_LT_LT, 1799, 2, mozjs_anon_sym_PLUS,
      mozjs_anon_sym_DASH, 1819, 2, mozjs_anon_sym_EQ_EQ, mozjs_anon_sym_BANG_EQ, 1821, 2,
      mozjs_anon_sym_EQ_EQ_EQ, mozjs_anon_sym_BANG_EQ_EQ, 1791, 3, mozjs_anon_sym_in,
      mozjs_anon_sym_LT, mozjs_anon_sym_GT, 1805, 3, mozjs_anon_sym_LT_EQ, mozjs_anon_sym_GT_EQ,
      mozjs_anon_sym_instanceof, 1843, 7, mozjs_anon_sym_COMMA, mozjs_anon_sym_RBRACE,
      mozjs_anon_sym_SEMI, mozjs_anon_sym_RPAREN, mozjs_anon_sym_COLON, mozjs_anon_sym_RBRACK,
      mozjs_anon_sym_BQUOTE]"

definition mozjs_small_run_19662 :: "nat list" where
  "mozjs_small_run_19662 =
    [25, 1578, 1, mozjs_anon_sym_LPAREN, 1580, 1, mozjs_anon_sym_LBRACK, 1582, 1,
      mozjs_anon_sym_DOT, 1594, 1, mozjs_sym_optional_chain, 1793, 1, mozjs_anon_sym_GT_GT, 1801,
      1, mozjs_anon_sym_PERCENT, 1803, 1, mozjs_anon_sym_STAR_STAR, 1809, 1,
      mozjs_anon_sym_AMP_AMP, 1811, 1, mozjs_anon_sym_PIPE_PIPE, 1813, 1, mozjs_anon_sym_AMP,
      1815, 1, mozjs_anon_sym_CARET, 1817, 1, mozjs_anon_sym_PIPE, 1823, 1,
      mozjs_anon_sym_QMARK_QMARK, 1825, 1, mozjs_sym__ternary_qmark, 639, 1, mozjs_sym_arguments,
      5, 2, mozjs_sym_html_comment, mozjs_sym_comment, 1600, 2, mozjs_anon_sym_PLUS_PLUS,
      mozjs_anon_sym_DASH_DASH, 1787, 2, mozjs_anon_sym_STAR, mozjs_anon_sym_SLASH, 1795, 2,
      mozjs_anon_sym_GT_GT_GT, mozjs_anon_sym_LT_LT, 1799, 2, mozjs_anon_sym_PLUS,
      mozjs_anon_sym_DASH, 1819, 2, mozjs_anon_sym_EQ_EQ, mozjs_anon_sym_BANG_EQ, 1821, 2,
      mozjs_anon_sym_EQ_EQ_EQ, mozjs_anon_sym_BANG_EQ_EQ, 1791, 3, mozjs_anon_sym_in,
      mozjs_anon_sym_LT, mozjs_anon_sym_GT, 1805, 3, mozjs_anon_sym_LT_EQ, mozjs_anon_sym_GT_EQ,
      mozjs_anon_sym_instanceof, 1768, 7, mozjs_anon_sym_COMMA, mozjs_anon_sym_RBRACE,
      mozjs_anon_sym_SEMI, mozjs_anon_sym_RPAREN, mozjs_anon_sym_COLON, mozjs_anon_sym_RBRACK,
      mozjs_anon_sym_BQUOTE]"

definition mozjs_small_run_19755 :: "nat list" where
  "mozjs_small_run_19755 =
    [4, 1777, 1, mozjs_anon_sym_EQ, 5, 2, mozjs_sym_html_comment, mozjs_sym_comment, 1770, 12,
      mozjs_anon_sym_STAR, mozjs_anon_sym_in, mozjs_anon_sym_LT, mozjs_anon_sym_GT,
      mozjs_anon_sym_GT_GT, mozjs_anon_sym_AMP, mozjs_anon_sym_PIPE, mozjs_anon_sym_PLUS,
      mozjs_anon_sym_DASH, mozjs_anon_sym_SLASH, mozjs_anon_sym_EQ_EQ, mozjs_anon_sym_BANG_EQ,
      1772, 27, mozjs_sym__ternary_qmark, mozjs_anon_sym_COMMA, mozjs_anon_sym_RBRACE,
      mozjs_anon_sym_LPAREN, mozjs_anon_sym_SEMI, mozjs_anon_sym_RPAREN, mozjs_anon_sym_COLON,
      mozjs_anon_sym_LBRACK, mozjs_anon_sym_RBRACK, mozjs_anon_sym_DOT, mozjs_sym_optional_chain,
      mozjs_anon_sym_AMP_AMP, mozjs_anon_sym_PIPE_PIPE, mozjs_anon_sym_GT_GT_GT,
      mozjs_anon_sym_LT_LT, mozjs_anon_sym_CARET, mozjs_anon_sym_PERCENT,
      mozjs_anon_sym_STAR_STAR, mozjs_anon_sym_LT_EQ, mozjs_anon_sym_EQ_EQ_EQ,
      mozjs_anon_sym_BANG_EQ_EQ, mozjs_anon_sym_GT_EQ, mozjs_anon_sym_QMARK_QMARK,
      mozjs_anon_sym_instanceof, mozjs_anon_sym_PLUS_PLUS, mozjs_anon_sym_DASH_DASH,
      mozjs_anon_sym_BQUOTE]"

definition mozjs_small_run_19806 :: "nat list" where
  "mozjs_small_run_19806 =
    [4, 1639, 1, mozjs_anon_sym_EQ, 5, 2, mozjs_sym_html_comment, mozjs_sym_comment, 1632, 12,
      mozjs_anon_sym_STAR, mozjs_anon_sym_in, mozjs_anon_sym_LT, mozjs_anon_sym_GT,
      mozjs_anon_sym_GT_GT, mozjs_anon_sym_AMP, mozjs_anon_sym_PIPE, mozjs_anon_sym_PLUS,
      mozjs_anon_sym_DASH, mozjs_anon_sym_SLASH, mozjs_anon_sym_EQ_EQ, mozjs_anon_sym_BANG_EQ,
      1634, 27, mozjs_sym__ternary_qmark, mozjs_anon_sym_COMMA, mozjs_anon_sym_RBRACE,
      mozjs_anon_sym_LPAREN, mozjs_anon_sym_SEMI, mozjs_anon_sym_RPAREN, mozjs_anon_sym_COLON,
      mozjs_anon_sym_LBRACK, mozjs_anon_sym_RBRACK, mozjs_anon_sym_DOT, mozjs_sym_optional_chain,
      mozjs_anon_sym_AMP_AMP, mozjs_anon_sym_PIPE_PIPE, mozjs_anon_sym_GT_GT_GT,
      mozjs_anon_sym_LT_LT, mozjs_anon_sym_CARET, mozjs_anon_sym_PERCENT,
      mozjs_anon_sym_STAR_STAR, mozjs_anon_sym_LT_EQ, mozjs_anon_sym_EQ_EQ_EQ,
      mozjs_anon_sym_BANG_EQ_EQ, mozjs_anon_sym_GT_EQ, mozjs_anon_sym_QMARK_QMARK,
      mozjs_anon_sym_instanceof, mozjs_anon_sym_PLUS_PLUS, mozjs_anon_sym_DASH_DASH,
      mozjs_anon_sym_BQUOTE]"

definition mozjs_small_run_19857 :: "nat list" where
  "mozjs_small_run_19857 =
    [3, 5, 2, mozjs_sym_html_comment, mozjs_sym_comment, 1722, 12, mozjs_anon_sym_STAR,
      mozjs_anon_sym_in, mozjs_anon_sym_LT, mozjs_anon_sym_GT, mozjs_anon_sym_GT_GT,
      mozjs_anon_sym_AMP, mozjs_anon_sym_PIPE, mozjs_anon_sym_PLUS, mozjs_anon_sym_DASH,
      mozjs_anon_sym_SLASH, mozjs_anon_sym_EQ_EQ, mozjs_anon_sym_BANG_EQ, 1724, 27,
      mozjs_sym__automatic_semicolon, mozjs_sym__ternary_qmark, mozjs_anon_sym_COMMA,
      mozjs_anon_sym_RBRACE, mozjs_anon_sym_of, mozjs_anon_sym_LPAREN, mozjs_anon_sym_SEMI,
      mozjs_anon_sym_COLON, mozjs_anon_sym_LBRACK, mozjs_anon_sym_DOT, mozjs_sym_optional_chain,
      mozjs_anon_sym_AMP_AMP, mozjs_anon_sym_PIPE_PIPE, mozjs_anon_sym_GT_GT_GT,
      mozjs_anon_sym_LT_LT, mozjs_anon_sym_CARET, mozjs_anon_sym_PERCENT,
      mozjs_anon_sym_STAR_STAR, mozjs_anon_sym_LT_EQ, mozjs_anon_sym_EQ_EQ_EQ,
      mozjs_anon_sym_BANG_EQ_EQ, mozjs_anon_sym_GT_EQ, mozjs_anon_sym_QMARK_QMARK,
      mozjs_anon_sym_instanceof, mozjs_anon_sym_PLUS_PLUS, mozjs_anon_sym_DASH_DASH,
      mozjs_anon_sym_BQUOTE]"

definition mozjs_small_run_19905 :: "nat list" where
  "mozjs_small_run_19905 =
    [4, 725, 1, mozjs_anon_sym_EQ, 5, 2, mozjs_sym_html_comment, mozjs_sym_comment, 721, 12,
      mozjs_anon_sym_STAR, mozjs_anon_sym_in, mozjs_anon_sym_LT, mozjs_anon_sym_GT,
      mozjs_anon_sym_GT_GT, mozjs_anon_sym_AMP, mozjs_anon_sym_PIPE, mozjs_anon_sym_PLUS,
      mozjs_anon_sym_DASH, mozjs_anon_sym_SLASH, mozjs_anon_sym_EQ_EQ, mozjs_anon_sym_BANG_EQ,
      723, 26, mozjs_sym__automatic_semicolon, mozjs_sym__ternary_qmark, mozjs_anon_sym_COMMA,
      mozjs_anon_sym_RBRACE, mozjs_anon_sym_of, mozjs_anon_sym_LPAREN, mozjs_anon_sym_SEMI,
      mozjs_anon_sym_LBRACK, mozjs_anon_sym_DOT, mozjs_sym_optional_chain,
      mozjs_anon_sym_AMP_AMP, mozjs_anon_sym_PIPE_PIPE, mozjs_anon_sym_GT_GT_GT,
      mozjs_anon_sym_LT_LT, mozjs_anon_sym_CARET, mozjs_anon_sym_PERCENT,
      mozjs_anon_sym_STAR_STAR, mozjs_anon_sym_LT_EQ, mozjs_anon_sym_EQ_EQ_EQ,
      mozjs_anon_sym_BANG_EQ_EQ, mozjs_anon_sym_GT_EQ, mozjs_anon_sym_QMARK_QMARK,
      mozjs_anon_sym_instanceof, mozjs_anon_sym_PLUS_PLUS, mozjs_anon_sym_DASH_DASH,
      mozjs_anon_sym_BQUOTE]"

definition mozjs_small_run_19955 :: "nat list" where
  "mozjs_small_run_19955 =
    [8, 1827, 1, mozjs_anon_sym_LPAREN, 1829, 1, mozjs_anon_sym_LBRACK, 1831, 1,
      mozjs_anon_sym_DOT, 1845, 1, mozjs_sym_optional_chain, 804, 1, mozjs_sym_arguments, 5, 2,
      mozjs_sym_html_comment, mozjs_sym_comment, 1590, 12, mozjs_anon_sym_STAR,
      mozjs_anon_sym_in, mozjs_anon_sym_LT, mozjs_anon_sym_GT, mozjs_anon_sym_GT_GT,
      mozjs_anon_sym_AMP, mozjs_anon_sym_PIPE, mozjs_anon_sym_PLUS, mozjs_anon_sym_DASH,
      mozjs_anon_sym_SLASH, mozjs_anon_sym_EQ_EQ, mozjs_anon_sym_BANG_EQ, 1592, 22,
      mozjs_sym__automatic_semicolon, mozjs_sym__ternary_qmark, mozjs_anon_sym_COMMA,
      mozjs_anon_sym_RBRACE, mozjs_anon_sym_of, mozjs_anon_sym_SEMI, mozjs_anon_sym_AMP_AMP,
      mozjs_anon_sym_PIPE_PIPE, mozjs_anon_sym_GT_GT_GT, mozjs_anon_sym_LT_LT,
      mozjs_anon_sym_CARET, mozjs_anon_sym_PERCENT, mozjs_anon_sym_STAR_STAR,
      mozjs_anon_sym_LT_EQ, mozjs_anon_sym_EQ_EQ_EQ, mozjs_anon_sym_BANG_EQ_EQ,
      mozjs_anon_sym_GT_EQ, mozjs_anon_sym_QMARK_QMARK, mozjs_anon_sym_instanceof,
      mozjs_anon_sym_PLUS_PLUS, mozjs_anon_sym_DASH_DASH, mozjs_anon_sym_BQUOTE]"

definition mozjs_small_run_20013 :: "nat list" where
  "mozjs_small_run_20013 =
    [25, 1578, 1, mozjs_anon_sym_LPAREN, 1580, 1, mozjs_anon_sym_LBRACK, 1582, 1,
      mozjs_anon_sym_DOT, 1594, 1, mozjs_sym_optional_chain, 1793, 1, mozjs_anon_sym_GT_GT, 1801,
      1, mozjs_anon_sym_PERCENT, 1803, 1, mozjs_anon_sym_STAR_STAR, 1809, 1,
      mozjs_anon_sym_AMP_AMP, 1811, 1, mozjs_anon_sym_PIPE_PIPE, 1813, 1, mozjs_anon_sym_AMP,
      1815, 1, mozjs_anon_sym_CARET, 1817, 1, mozjs_anon_sym_PIPE, 1823, 1,
      mozjs_anon_sym_QMARK_QMARK, 1825, 1, mozjs_sym__ternary_qmark, 639, 1, mozjs_sym_arguments,
      5, 2, mozjs_sym_html_comment, mozjs_sym_comment, 1600, 2, mozjs_anon_sym_PLUS_PLUS,
      mozjs_anon_sym_DASH_DASH, 1787, 2, mozjs_anon_sym_STAR, mozjs_anon_sym_SLASH, 1795, 2,
      mozjs_anon_sym_GT_GT_GT, mozjs_anon_sym_LT_LT, 1799, 2, mozjs_anon_sym_PLUS,
      mozjs_anon_sym_DASH, 1819, 2, mozjs_anon_sym_EQ_EQ, mozjs_anon_sym_BANG_EQ, 1821, 2,
      mozjs_anon_sym_EQ_EQ_EQ, mozjs_anon_sym_BANG_EQ_EQ, 1791, 3, mozjs_anon_sym_in,
      mozjs_anon_sym_LT, mozjs_anon_sym_GT, 1805, 3, mozjs_anon_sym_LT_EQ, mozjs_anon_sym_GT_EQ,
      mozjs_anon_sym_instanceof, 1847, 6, mozjs_anon_sym_COMMA, mozjs_anon_sym_RBRACE,
      mozjs_anon_sym_SEMI, mozjs_anon_sym_RPAREN, mozjs_anon_sym_COLON, mozjs_anon_sym_RBRACK]"

definition mozjs_small_run_20105 :: "nat list" where
  "mozjs_small_run_20105 =
    [4, 1639, 1, mozjs_anon_sym_EQ, 5, 2, mozjs_sym_html_comment, mozjs_sym_comment, 1632, 12,
      mozjs_anon_sym_STAR, mozjs_anon_sym_in, mozjs_anon_sym_LT, mozjs_anon_sym_GT,
      mozjs_anon_sym_GT_GT, mozjs_anon_sym_AMP, mozjs_anon_sym_PIPE, mozjs_anon_sym_PLUS,
      mozjs_anon_sym_DASH, mozjs_anon_sym_SLASH, mozjs_anon_sym_EQ_EQ, mozjs_anon_sym_BANG_EQ,
      1634, 26, mozjs_sym__automatic_semicolon, mozjs_sym__ternary_qmark, mozjs_anon_sym_COMMA,
      mozjs_anon_sym_RBRACE, mozjs_anon_sym_of, mozjs_anon_sym_LPAREN, mozjs_anon_sym_SEMI,
      mozjs_anon_sym_LBRACK, mozjs_anon_sym_DOT, mozjs_sym_optional_chain,
      mozjs_anon_sym_AMP_AMP, mozjs_anon_sym_PIPE_PIPE, mozjs_anon_sym_GT_GT_GT,
      mozjs_anon_sym_LT_LT, mozjs_anon_sym_CARET, mozjs_anon_sym_PERCENT,
      mozjs_anon_sym_STAR_STAR, mozjs_anon_sym_LT_EQ, mozjs_anon_sym_EQ_EQ_EQ,
      mozjs_anon_sym_BANG_EQ_EQ, mozjs_anon_sym_GT_EQ, mozjs_anon_sym_QMARK_QMARK,
      mozjs_anon_sym_instanceof, mozjs_anon_sym_PLUS_PLUS, mozjs_anon_sym_DASH_DASH,
      mozjs_anon_sym_BQUOTE]"

definition mozjs_small_run_20155 :: "nat list" where
  "mozjs_small_run_20155 =
    [5, 83, 1, mozjs_anon_sym_BQUOTE, 760, 1, mozjs_sym_template_string, 5, 2,
      mozjs_sym_html_comment, mozjs_sym_comment, 1586, 12, mozjs_anon_sym_STAR,
      mozjs_anon_sym_in, mozjs_anon_sym_LT, mozjs_anon_sym_GT, mozjs_anon_sym_GT_GT,
      mozjs_anon_sym_AMP, mozjs_anon_sym_PIPE, mozjs_anon_sym_PLUS, mozjs_anon_sym_DASH,
      mozjs_anon_sym_SLASH, mozjs_anon_sym_EQ_EQ, mozjs_anon_sym_BANG_EQ, 1588, 25,
      mozjs_sym__automatic_semicolon, mozjs_sym__ternary_qmark, mozjs_anon_sym_COMMA,
      mozjs_anon_sym_RBRACE, mozjs_anon_sym_of, mozjs_anon_sym_LPAREN, mozjs_anon_sym_SEMI,
      mozjs_anon_sym_LBRACK, mozjs_anon_sym_DOT, mozjs_sym_optional_chain,
      mozjs_anon_sym_AMP_AMP, mozjs_anon_sym_PIPE_PIPE, mozjs_anon_sym_GT_GT_GT,
      mozjs_anon_sym_LT_LT, mozjs_anon_sym_CARET, mozjs_anon_sym_PERCENT,
      mozjs_anon_sym_STAR_STAR, mozjs_anon_sym_LT_EQ, mozjs_anon_sym_EQ_EQ_EQ,
      mozjs_anon_sym_BANG_EQ_EQ, mozjs_anon_sym_GT_EQ, mozjs_anon_sym_QMARK_QMARK,
      mozjs_anon_sym_instanceof, mozjs_anon_sym_PLUS_PLUS, mozjs_anon_sym_DASH_DASH]"

definition mozjs_small_run_20207 :: "nat list" where
  "mozjs_small_run_20207 =
    [8, 83, 1, mozjs_anon_sym_BQUOTE, 1829, 1, mozjs_anon_sym_LBRACK, 1831, 1,
      mozjs_anon_sym_DOT, 1833, 1, mozjs_sym_optional_chain, 760, 1, mozjs_sym_template_string,
      5, 2, mozjs_sym_html_comment, mozjs_sym_comment, 1586, 12, mozjs_anon_sym_STAR,
      mozjs_anon_sym_in, mozjs_anon_sym_LT, mozjs_anon_sym_GT, mozjs_anon_sym_GT_GT,
      mozjs_anon_sym_AMP, mozjs_anon_sym_PIPE, mozjs_anon_sym_PLUS, mozjs_anon_sym_DASH,
      mozjs_anon_sym_SLASH, mozjs_anon_sym_EQ_EQ, mozjs_anon_sym_BANG_EQ, 1588, 22,
      mozjs_sym__automatic_semicolon, mozjs_sym__ternary_qmark, mozjs_anon_sym_COMMA,
      mozjs_anon_sym_RBRACE, mozjs_anon_sym_of, mozjs_anon_sym_LPAREN, mozjs_anon_sym_SEMI,
      mozjs_anon_sym_AMP_AMP, mozjs_anon_sym_PIPE_PIPE, mozjs_anon_sym_GT_GT_GT,
      mozjs_anon_sym_LT_LT, mozjs_anon_sym_CARET, mozjs_anon_sym_PERCENT,
      mozjs_anon_sym_STAR_STAR, mozjs_anon_sym_LT_EQ, mozjs_anon_sym_EQ_EQ_EQ,
      mozjs_anon_sym_BANG_EQ_EQ, mozjs_anon_sym_GT_EQ, mozjs_anon_sym_QMARK_QMARK,
      mozjs_anon_sym_instanceof, mozjs_anon_sym_PLUS_PLUS, mozjs_anon_sym_DASH_DASH]"

definition mozjs_small_run_20265 :: "nat list" where
  "mozjs_small_run_20265 =
    [3, 5, 2, mozjs_sym_html_comment, mozjs_sym_comment, 1714, 12, mozjs_anon_sym_STAR,
      mozjs_anon_sym_in, mozjs_anon_sym_LT, mozjs_anon_sym_GT, mozjs_anon_sym_GT_GT,
      mozjs_anon_sym_AMP, mozjs_anon_sym_PIPE, mozjs_anon_sym_PLUS, mozjs_anon_sym_DASH,
      mozjs_anon_sym_SLASH, mozjs_anon_sym_EQ_EQ, mozjs_anon_sym_BANG_EQ, 1716, 27,
      mozjs_sym__automatic_semicolon, mozjs_sym__ternary_qmark, mozjs_anon_sym_COMMA,
      mozjs_anon_sym_RBRACE, mozjs_anon_sym_of, mozjs_anon_sym_LPAREN, mozjs_anon_sym_SEMI,
      mozjs_anon_sym_COLON, mozjs_anon_sym_LBRACK, mozjs_anon_sym_DOT, mozjs_sym_optional_chain,
      mozjs_anon_sym_AMP_AMP, mozjs_anon_sym_PIPE_PIPE, mozjs_anon_sym_GT_GT_GT,
      mozjs_anon_sym_LT_LT, mozjs_anon_sym_CARET, mozjs_anon_sym_PERCENT,
      mozjs_anon_sym_STAR_STAR, mozjs_anon_sym_LT_EQ, mozjs_anon_sym_EQ_EQ_EQ,
      mozjs_anon_sym_BANG_EQ_EQ, mozjs_anon_sym_GT_EQ, mozjs_anon_sym_QMARK_QMARK,
      mozjs_anon_sym_instanceof, mozjs_anon_sym_PLUS_PLUS, mozjs_anon_sym_DASH_DASH,
      mozjs_anon_sym_BQUOTE]"

definition mozjs_small_run_20313 :: "nat list" where
  "mozjs_small_run_20313 =
    [5, 701, 1, mozjs_sym__automatic_semicolon, 725, 1, mozjs_anon_sym_EQ, 5, 2,
      mozjs_sym_html_comment, mozjs_sym_comment, 699, 12, mozjs_anon_sym_STAR, mozjs_anon_sym_in,
      mozjs_anon_sym_LT, mozjs_anon_sym_GT, mozjs_anon_sym_GT_GT, mozjs_anon_sym_AMP,
      mozjs_anon_sym_PIPE, mozjs_anon_sym_PLUS, mozjs_anon_sym_DASH, mozjs_anon_sym_SLASH,
      mozjs_anon_sym_EQ_EQ, mozjs_anon_sym_BANG_EQ, 697, 25, mozjs_sym__ternary_qmark,
      mozjs_anon_sym_COMMA, mozjs_anon_sym_RBRACE, mozjs_anon_sym_of, mozjs_anon_sym_LPAREN,
      mozjs_anon_sym_SEMI, mozjs_anon_sym_LBRACK, mozjs_anon_sym_DOT, mozjs_sym_optional_chain,
      mozjs_anon_sym_AMP_AMP, mozjs_anon_sym_PIPE_PIPE, mozjs_anon_sym_GT_GT_GT,
      mozjs_anon_sym_LT_LT, mozjs_anon_sym_CARET, mozjs_anon_sym_PERCENT,
      mozjs_anon_sym_STAR_STAR, mozjs_anon_sym_LT_EQ, mozjs_anon_sym_EQ_EQ_EQ,
      mozjs_anon_sym_BANG_EQ_EQ, mozjs_anon_sym_GT_EQ, mozjs_anon_sym_QMARK_QMARK,
      mozjs_anon_sym_instanceof, mozjs_anon_sym_PLUS_PLUS, mozjs_anon_sym_DASH_DASH,
      mozjs_anon_sym_BQUOTE]"

definition mozjs_small_run_20365 :: "nat list" where
  "mozjs_small_run_20365 =
    [6, 725, 1, mozjs_anon_sym_EQ, 727, 1, mozjs_sym__automatic_semicolon, 5, 2,
      mozjs_sym_html_comment, mozjs_sym_comment, 697, 2, mozjs_anon_sym_else,
      mozjs_anon_sym_while, 721, 12, mozjs_anon_sym_STAR, mozjs_anon_sym_in, mozjs_anon_sym_LT,
      mozjs_anon_sym_GT, mozjs_anon_sym_GT_GT, mozjs_anon_sym_AMP, mozjs_anon_sym_PIPE,
      mozjs_anon_sym_PLUS, mozjs_anon_sym_DASH, mozjs_anon_sym_SLASH, mozjs_anon_sym_EQ_EQ,
      mozjs_anon_sym_BANG_EQ, 723, 23, mozjs_sym__ternary_qmark, mozjs_anon_sym_COMMA,
      mozjs_anon_sym_LPAREN, mozjs_anon_sym_SEMI, mozjs_anon_sym_LBRACK, mozjs_anon_sym_DOT,
      mozjs_sym_optional_chain, mozjs_anon_sym_AMP_AMP, mozjs_anon_sym_PIPE_PIPE,
      mozjs_anon_sym_GT_GT_GT, mozjs_anon_sym_LT_LT, mozjs_anon_sym_CARET,
      mozjs_anon_sym_PERCENT, mozjs_anon_sym_STAR_STAR, mozjs_anon_sym_LT_EQ,
      mozjs_anon_sym_EQ_EQ_EQ, mozjs_anon_sym_BANG_EQ_EQ, mozjs_anon_sym_GT_EQ,
      mozjs_anon_sym_QMARK_QMARK, mozjs_anon_sym_instanceof, mozjs_anon_sym_PLUS_PLUS,
      mozjs_anon_sym_DASH_DASH, mozjs_anon_sym_BQUOTE]"

definition mozjs_small_run_20419 :: "nat list" where
  "mozjs_small_run_20419 =
    [4, 1777, 1, mozjs_anon_sym_EQ, 5, 2, mozjs_sym_html_comment, mozjs_sym_comment, 1770, 12,
      mozjs_anon_sym_STAR, mozjs_anon_sym_in, mozjs_anon_sym_LT, mozjs_anon_sym_GT,
      mozjs_anon_sym_GT_GT, mozjs_anon_sym_AMP, mozjs_anon_sym_PIPE, mozjs_anon_sym_PLUS,
      mozjs_anon_sym_DASH, mozjs_anon_sym_SLASH, mozjs_anon_sym_EQ_EQ, mozjs_anon_sym_BANG_EQ,
      1772, 26, mozjs_sym__automatic_semicolon, mozjs_sym__ternary_qmark, mozjs_anon_sym_COMMA,
      mozjs_anon_sym_RBRACE, mozjs_anon_sym_of, mozjs_anon_sym_LPAREN, mozjs_anon_sym_SEMI,
      mozjs_anon_sym_LBRACK, mozjs_anon_sym_DOT, mozjs_sym_optional_chain,
      mozjs_anon_sym_AMP_AMP, mozjs_anon_sym_PIPE_PIPE, mozjs_anon_sym_GT_GT_GT,
      mozjs_anon_sym_LT_LT, mozjs_anon_sym_CARET, mozjs_anon_sym_PERCENT,
      mozjs_anon_sym_STAR_STAR, mozjs_anon_sym_LT_EQ, mozjs_anon_sym_EQ_EQ_EQ,
      mozjs_anon_sym_BANG_EQ_EQ, mozjs_anon_sym_GT_EQ, mozjs_anon_sym_QMARK_QMARK,
      mozjs_anon_sym_instanceof, mozjs_anon_sym_PLUS_PLUS, mozjs_anon_sym_DASH_DASH,
      mozjs_anon_sym_BQUOTE]"

definition mozjs_small_run_20469 :: "nat list" where
  "mozjs_small_run_20469 =
    [9, 1827, 1, mozjs_anon_sym_LPAREN, 1829, 1, mozjs_anon_sym_LBRACK, 1831, 1,
      mozjs_anon_sym_DOT, 1845, 1, mozjs_sym_optional_chain, 804, 1, mozjs_sym_arguments, 5, 2,
      mozjs_sym_html_comment, mozjs_sym_comment, 1849, 2, mozjs_anon_sym_PLUS_PLUS,
      mozjs_anon_sym_DASH_DASH, 1596, 12, mozjs_anon_sym_STAR, mozjs_anon_sym_in,
      mozjs_anon_sym_LT, mozjs_anon_sym_GT, mozjs_anon_sym_GT_GT, mozjs_anon_sym_AMP,
      mozjs_anon_sym_PIPE, mozjs_anon_sym_PLUS, mozjs_anon_sym_DASH, mozjs_anon_sym_SLASH,
      mozjs_anon_sym_EQ_EQ, mozjs_anon_sym_BANG_EQ, 1598, 20, mozjs_sym__automatic_semicolon,
      mozjs_sym__ternary_qmark, mozjs_anon_sym_COMMA, mozjs_anon_sym_RBRACE, mozjs_anon_sym_of,
      mozjs_anon_sym_SEMI, mozjs_anon_sym_AMP_AMP, mozjs_anon_sym_PIPE_PIPE,
      mozjs_anon_sym_GT_GT_GT, mozjs_anon_sym_LT_LT, mozjs_anon_sym_CARET,
      mozjs_anon_sym_PERCENT, mozjs_anon_sym_STAR_STAR, mozjs_anon_sym_LT_EQ,
      mozjs_anon_sym_EQ_EQ_EQ, mozjs_anon_sym_BANG_EQ_EQ, mozjs_anon_sym_GT_EQ,
      mozjs_anon_sym_QMARK_QMARK, mozjs_anon_sym_instanceof, mozjs_anon_sym_BQUOTE]"

definition mozjs_small_run_20529 :: "nat list" where
  "mozjs_small_run_20529 =
    [4, 1472, 1, mozjs_anon_sym_EQ, 5, 2, mozjs_sym_html_comment, mozjs_sym_comment, 1435, 12,
      mozjs_anon_sym_STAR, mozjs_anon_sym_in, mozjs_anon_sym_LT, mozjs_anon_sym_GT,
      mozjs_anon_sym_GT_GT, mozjs_anon_sym_AMP, mozjs_anon_sym_PIPE, mozjs_anon_sym_PLUS,
      mozjs_anon_sym_DASH, mozjs_anon_sym_SLASH, mozjs_anon_sym_EQ_EQ, mozjs_anon_sym_BANG_EQ,
      1437, 26, mozjs_sym__automatic_semicolon, mozjs_sym__ternary_qmark, mozjs_anon_sym_COMMA,
      mozjs_anon_sym_RBRACE, mozjs_anon_sym_of, mozjs_anon_sym_LPAREN, mozjs_anon_sym_SEMI,
      mozjs_anon_sym_LBRACK, mozjs_anon_sym_DOT, mozjs_sym_optional_chain,
      mozjs_anon_sym_AMP_AMP, mozjs_anon_sym_PIPE_PIPE, mozjs_anon_sym_GT_GT_GT,
      mozjs_anon_sym_LT_LT, mozjs_anon_sym_CARET, mozjs_anon_sym_PERCENT,
      mozjs_anon_sym_STAR_STAR, mozjs_anon_sym_LT_EQ, mozjs_anon_sym_EQ_EQ_EQ,
      mozjs_anon_sym_BANG_EQ_EQ, mozjs_anon_sym_GT_EQ, mozjs_anon_sym_QMARK_QMARK,
      mozjs_anon_sym_instanceof, mozjs_anon_sym_PLUS_PLUS, mozjs_anon_sym_DASH_DASH,
      mozjs_anon_sym_BQUOTE]"

definition mozjs_small_run_20579 :: "nat list" where
  "mozjs_small_run_20579 =
    [9, 1827, 1, mozjs_anon_sym_LPAREN, 1829, 1, mozjs_anon_sym_LBRACK, 1831, 1,
      mozjs_anon_sym_DOT, 1845, 1, mozjs_sym_optional_chain, 804, 1, mozjs_sym_arguments, 5, 2,
      mozjs_sym_html_comment, mozjs_sym_comment, 1849, 2, mozjs_anon_sym_PLUS_PLUS,
      mozjs_anon_sym_DASH_DASH, 1604, 12, mozjs_anon_sym_STAR, mozjs_anon_sym_in,
      mozjs_anon_sym_LT, mozjs_anon_sym_GT, mozjs_anon_sym_GT_GT, mozjs_anon_sym_AMP,
      mozjs_anon_sym_PIPE, mozjs_anon_sym_PLUS, mozjs_anon_sym_DASH, mozjs_anon_sym_SLASH,
      mozjs_anon_sym_EQ_EQ, mozjs_anon_sym_BANG_EQ, 1606, 20, mozjs_sym__automatic_semicolon,
      mozjs_sym__ternary_qmark, mozjs_anon_sym_COMMA, mozjs_anon_sym_RBRACE, mozjs_anon_sym_of,
      mozjs_anon_sym_SEMI, mozjs_anon_sym_AMP_AMP, mozjs_anon_sym_PIPE_PIPE,
      mozjs_anon_sym_GT_GT_GT, mozjs_anon_sym_LT_LT, mozjs_anon_sym_CARET,
      mozjs_anon_sym_PERCENT, mozjs_anon_sym_STAR_STAR, mozjs_anon_sym_LT_EQ,
      mozjs_anon_sym_EQ_EQ_EQ, mozjs_anon_sym_BANG_EQ_EQ, mozjs_anon_sym_GT_EQ,
      mozjs_anon_sym_QMARK_QMARK, mozjs_anon_sym_instanceof, mozjs_anon_sym_BQUOTE]"

definition mozjs_small_run_20639 :: "nat list" where
  "mozjs_small_run_20639 =
    [25, 1827, 1, mozjs_anon_sym_LPAREN, 1829, 1, mozjs_anon_sym_LBRACK, 1831, 1,
      mozjs_anon_sym_DOT, 1845, 1, mozjs_sym_optional_chain, 1855, 1, mozjs_anon_sym_AMP_AMP,
      1857, 1, mozjs_anon_sym_PIPE_PIPE, 1859, 1, mozjs_anon_sym_GT_GT, 1863, 1,
      mozjs_anon_sym_AMP, 1865, 1, mozjs_anon_sym_CARET, 1867, 1, mozjs_anon_sym_PIPE, 1871, 1,
      mozjs_anon_sym_PERCENT, 1873, 1, mozjs_anon_sym_STAR_STAR, 1881, 1,
      mozjs_anon_sym_QMARK_QMARK, 1883, 1, mozjs_sym__ternary_qmark, 804, 1, mozjs_sym_arguments,
      5, 2, mozjs_sym_html_comment, mozjs_sym_comment, 1849, 2, mozjs_anon_sym_PLUS_PLUS,
      mozjs_anon_sym_DASH_DASH, 1851, 2, mozjs_anon_sym_STAR, mozjs_anon_sym_SLASH, 1861, 2,
      mozjs_anon_sym_GT_GT_GT, mozjs_anon_sym_LT_LT, 1869, 2, mozjs_anon_sym_PLUS,
      mozjs_anon_sym_DASH, 1877, 2, mozjs_anon_sym_EQ_EQ, mozjs_anon_sym_BANG_EQ, 1879, 2,
      mozjs_anon_sym_EQ_EQ_EQ, mozjs_anon_sym_BANG_EQ_EQ, 1853, 3, mozjs_anon_sym_in,
      mozjs_anon_sym_LT, mozjs_anon_sym_GT, 1875, 3, mozjs_anon_sym_LT_EQ, mozjs_anon_sym_GT_EQ,
      mozjs_anon_sym_instanceof, 1807, 5, mozjs_sym__automatic_semicolon, mozjs_anon_sym_COMMA,
      mozjs_anon_sym_of, mozjs_anon_sym_SEMI, mozjs_anon_sym_BQUOTE]"

definition mozjs_small_run_20730 :: "nat list" where
  "mozjs_small_run_20730 =
    [3, 5, 2, mozjs_sym_html_comment, mozjs_sym_comment, 1684, 12, mozjs_anon_sym_STAR,
      mozjs_anon_sym_in, mozjs_anon_sym_LT, mozjs_anon_sym_GT, mozjs_anon_sym_GT_GT,
      mozjs_anon_sym_AMP, mozjs_anon_sym_PIPE, mozjs_anon_sym_PLUS, mozjs_anon_sym_DASH,
      mozjs_anon_sym_SLASH, mozjs_anon_sym_EQ_EQ, mozjs_anon_sym_BANG_EQ, 1686, 26,
      mozjs_sym__automatic_semicolon, mozjs_sym__ternary_qmark, mozjs_anon_sym_COMMA,
      mozjs_anon_sym_RBRACE, mozjs_anon_sym_of, mozjs_anon_sym_LPAREN, mozjs_anon_sym_SEMI,
      mozjs_anon_sym_LBRACK, mozjs_anon_sym_DOT, mozjs_sym_optional_chain,
      mozjs_anon_sym_AMP_AMP, mozjs_anon_sym_PIPE_PIPE, mozjs_anon_sym_GT_GT_GT,
      mozjs_anon_sym_LT_LT, mozjs_anon_sym_CARET, mozjs_anon_sym_PERCENT,
      mozjs_anon_sym_STAR_STAR, mozjs_anon_sym_LT_EQ, mozjs_anon_sym_EQ_EQ_EQ,
      mozjs_anon_sym_BANG_EQ_EQ, mozjs_anon_sym_GT_EQ, mozjs_anon_sym_QMARK_QMARK,
      mozjs_anon_sym_instanceof, mozjs_anon_sym_PLUS_PLUS, mozjs_anon_sym_DASH_DASH,
      mozjs_anon_sym_BQUOTE]"

definition mozjs_small_run_20777 :: "nat list" where
  "mozjs_small_run_20777 =
    [25, 1827, 1, mozjs_anon_sym_LPAREN, 1829, 1, mozjs_anon_sym_LBRACK, 1831, 1,
      mozjs_anon_sym_DOT, 1845, 1, mozjs_sym_optional_chain, 1855, 1, mozjs_anon_sym_AMP_AMP,
      1857, 1, mozjs_anon_sym_PIPE_PIPE, 1859, 1, mozjs_anon_sym_GT_GT, 1863, 1,
      mozjs_anon_sym_AMP, 1865, 1, mozjs_anon_sym_CARET, 1867, 1, mozjs_anon_sym_PIPE, 1871, 1,
      mozjs_anon_sym_PERCENT, 1873, 1, mozjs_anon_sym_STAR_STAR, 1881, 1,
      mozjs_anon_sym_QMARK_QMARK, 1883, 1, mozjs_sym__ternary_qmark, 804, 1, mozjs_sym_arguments,
      5, 2, mozjs_sym_html_comment, mozjs_sym_comment, 1849, 2, mozjs_anon_sym_PLUS_PLUS,
      mozjs_anon_sym_DASH_DASH, 1851, 2, mozjs_anon_sym_STAR, mozjs_anon_sym_SLASH, 1861, 2,
      mozjs_anon_sym_GT_GT_GT, mozjs_anon_sym_LT_LT, 1869, 2, mozjs_anon_sym_PLUS,
      mozjs_anon_sym_DASH, 1877, 2, mozjs_anon_sym_EQ_EQ, mozjs_anon_sym_BANG_EQ, 1879, 2,
      mozjs_anon_sym_EQ_EQ_EQ, mozjs_anon_sym_BANG_EQ_EQ, 1853, 3, mozjs_anon_sym_in,
      mozjs_anon_sym_LT, mozjs_anon_sym_GT, 1875, 3, mozjs_anon_sym_LT_EQ, mozjs_anon_sym_GT_EQ,
      mozjs_anon_sym_instanceof, 1835, 5, mozjs_sym__automatic_semicolon, mozjs_anon_sym_COMMA,
      mozjs_anon_sym_of, mozjs_anon_sym_SEMI, mozjs_anon_sym_BQUOTE]"

definition mozjs_small_run_20868 :: "nat list" where
  "mozjs_small_run_20868 =
    [3, 5, 2, mozjs_sym_html_comment, mozjs_sym_comment, 1688, 12, mozjs_anon_sym_STAR,
      mozjs_anon_sym_in, mozjs_anon_sym_LT, mozjs_anon_sym_GT, mozjs_anon_sym_GT_GT,
      mozjs_anon_sym_AMP, mozjs_anon_sym_PIPE, mozjs_anon_sym_PLUS, mozjs_anon_sym_DASH,
      mozjs_anon_sym_SLASH, mozjs_anon_sym_EQ_EQ, mozjs_anon_sym_BANG_EQ, 1690, 26,
      mozjs_sym__automatic_semicolon, mozjs_sym__ternary_qmark, mozjs_anon_sym_COMMA,
      mozjs_anon_sym_RBRACE, mozjs_anon_sym_of, mozjs_anon_sym_LPAREN, mozjs_anon_sym_SEMI,
      mozjs_anon_sym_LBRACK, mozjs_anon_sym_DOT, mozjs_sym_optional_chain,
      mozjs_anon_sym_AMP_AMP, mozjs_anon_sym_PIPE_PIPE, mozjs_anon_sym_GT_GT_GT,
      mozjs_anon_sym_LT_LT, mozjs_anon_sym_CARET, mozjs_anon_sym_PERCENT,
      mozjs_anon_sym_STAR_STAR, mozjs_anon_sym_LT_EQ, mozjs_anon_sym_EQ_EQ_EQ,
      mozjs_anon_sym_BANG_EQ_EQ, mozjs_anon_sym_GT_EQ, mozjs_anon_sym_QMARK_QMARK,
      mozjs_anon_sym_instanceof, mozjs_anon_sym_PLUS_PLUS, mozjs_anon_sym_DASH_DASH,
      mozjs_anon_sym_BQUOTE]"

definition mozjs_small_run_20915 :: "nat list" where
  "mozjs_small_run_20915 =
    [3, 5, 2, mozjs_sym_html_comment, mozjs_sym_comment, 1692, 12, mozjs_anon_sym_STAR,
      mozjs_anon_sym_in, mozjs_anon_sym_LT, mozjs_anon_sym_GT, mozjs_anon_sym_GT_GT,
      mozjs_anon_sym_AMP, mozjs_anon_sym_PIPE, mozjs_anon_sym_PLUS, mozjs_anon_sym_DASH,
      mozjs_anon_sym_SLASH, mozjs_anon_sym_EQ_EQ, mozjs_anon_sym_BANG_EQ, 1694, 26,
      mozjs_sym__automatic_semicolon, mozjs_sym__ternary_qmark, mozjs_anon_sym_COMMA,
      mozjs_anon_sym_RBRACE, mozjs_anon_sym_of, mozjs_anon_sym_LPAREN, mozjs_anon_sym_SEMI,
      mozjs_anon_sym_LBRACK, mozjs_anon_sym_DOT, mozjs_sym_optional_chain,
      mozjs_anon_sym_AMP_AMP, mozjs_anon_sym_PIPE_PIPE, mozjs_anon_sym_GT_GT_GT,
      mozjs_anon_sym_LT_LT, mozjs_anon_sym_CARET, mozjs_anon_sym_PERCENT,
      mozjs_anon_sym_STAR_STAR, mozjs_anon_sym_LT_EQ, mozjs_anon_sym_EQ_EQ_EQ,
      mozjs_anon_sym_BANG_EQ_EQ, mozjs_anon_sym_GT_EQ, mozjs_anon_sym_QMARK_QMARK,
      mozjs_anon_sym_instanceof, mozjs_anon_sym_PLUS_PLUS, mozjs_anon_sym_DASH_DASH,
      mozjs_anon_sym_BQUOTE]"

definition mozjs_small_run_20962 :: "nat list" where
  "mozjs_small_run_20962 =
    [4, 1885, 1, mozjs_sym_regex_flags, 5, 2, mozjs_sym_html_comment, mozjs_sym_comment, 1696,
      13, mozjs_anon_sym_STAR, mozjs_anon_sym_in, mozjs_anon_sym_LT, mozjs_anon_sym_GT,
      mozjs_anon_sym_GT_GT, mozjs_anon_sym_AMP, mozjs_anon_sym_PIPE, mozjs_anon_sym_PLUS,
      mozjs_anon_sym_DASH, mozjs_anon_sym_SLASH, mozjs_anon_sym_EQ_EQ, mozjs_anon_sym_BANG_EQ,
      mozjs_anon_sym_instanceof, 1698, 24, mozjs_sym__automatic_semicolon,
      mozjs_sym__ternary_qmark, mozjs_anon_sym_COMMA, mozjs_anon_sym_RBRACE,
      mozjs_anon_sym_LPAREN, mozjs_anon_sym_SEMI, mozjs_anon_sym_LBRACK, mozjs_anon_sym_DOT,
      mozjs_sym_optional_chain, mozjs_anon_sym_AMP_AMP, mozjs_anon_sym_PIPE_PIPE,
      mozjs_anon_sym_GT_GT_GT, mozjs_anon_sym_LT_LT, mozjs_anon_sym_CARET,
      mozjs_anon_sym_PERCENT, mozjs_anon_sym_STAR_STAR, mozjs_anon_sym_LT_EQ,
      mozjs_anon_sym_EQ_EQ_EQ, mozjs_anon_sym_BANG_EQ_EQ, mozjs_anon_sym_GT_EQ,
      mozjs_anon_sym_QMARK_QMARK, mozjs_anon_sym_PLUS_PLUS, mozjs_anon_sym_DASH_DASH,
      mozjs_anon_sym_BQUOTE]"

definition mozjs_small_run_21011 :: "nat list" where
  "mozjs_small_run_21011 =
    [25, 1827, 1, mozjs_anon_sym_LPAREN, 1829, 1, mozjs_anon_sym_LBRACK, 1831, 1,
      mozjs_anon_sym_DOT, 1845, 1, mozjs_sym_optional_chain, 1855, 1, mozjs_anon_sym_AMP_AMP,
      1857, 1, mozjs_anon_sym_PIPE_PIPE, 1859, 1, mozjs_anon_sym_GT_GT, 1863, 1,
      mozjs_anon_sym_AMP, 1865, 1, mozjs_anon_sym_CARET, 1867, 1, mozjs_anon_sym_PIPE, 1871, 1,
      mozjs_anon_sym_PERCENT, 1873, 1, mozjs_anon_sym_STAR_STAR, 1881, 1,
      mozjs_anon_sym_QMARK_QMARK, 1883, 1, mozjs_sym__ternary_qmark, 804, 1, mozjs_sym_arguments,
      5, 2, mozjs_sym_html_comment, mozjs_sym_comment, 1849, 2, mozjs_anon_sym_PLUS_PLUS,
      mozjs_anon_sym_DASH_DASH, 1851, 2, mozjs_anon_sym_STAR, mozjs_anon_sym_SLASH, 1861, 2,
      mozjs_anon_sym_GT_GT_GT, mozjs_anon_sym_LT_LT, 1869, 2, mozjs_anon_sym_PLUS,
      mozjs_anon_sym_DASH, 1877, 2, mozjs_anon_sym_EQ_EQ, mozjs_anon_sym_BANG_EQ, 1879, 2,
      mozjs_anon_sym_EQ_EQ_EQ, mozjs_anon_sym_BANG_EQ_EQ, 1853, 3, mozjs_anon_sym_in,
      mozjs_anon_sym_LT, mozjs_anon_sym_GT, 1875, 3, mozjs_anon_sym_LT_EQ, mozjs_anon_sym_GT_EQ,
      mozjs_anon_sym_instanceof, 1837, 5, mozjs_sym__automatic_semicolon, mozjs_anon_sym_COMMA,
      mozjs_anon_sym_of, mozjs_anon_sym_SEMI, mozjs_anon_sym_BQUOTE]"

definition mozjs_small_run_21102 :: "nat list" where
  "mozjs_small_run_21102 =
    [25, 1827, 1, mozjs_anon_sym_LPAREN, 1829, 1, mozjs_anon_sym_LBRACK, 1831, 1,
      mozjs_anon_sym_DOT, 1845, 1, mozjs_sym_optional_chain, 1855, 1, mozjs_anon_sym_AMP_AMP,
      1857, 1, mozjs_anon_sym_PIPE_PIPE, 1859, 1, mozjs_anon_sym_GT_GT, 1863, 1,
      mozjs_anon_sym_AMP, 1865, 1, mozjs_anon_sym_CARET, 1867, 1, mozjs_anon_sym_PIPE, 1871, 1,
      mozjs_anon_sym_PERCENT, 1873, 1, mozjs_anon_sym_STAR_STAR, 1881, 1,
      mozjs_anon_sym_QMARK_QMARK, 1883, 1, mozjs_sym__ternary_qmark, 804, 1, mozjs_sym_arguments,
      5, 2, mozjs_sym_html_comment, mozjs_sym_comment, 1849, 2, mozjs_anon_sym_PLUS_PLUS,
      mozjs_anon_sym_DASH_DASH, 1851, 2, mozjs_anon_sym_STAR, mozjs_anon_sym_SLASH, 1861, 2,
      mozjs_anon_sym_GT_GT_GT, mozjs_anon_sym_LT_LT, 1869, 2, mozjs_anon_sym_PLUS,
      mozjs_anon_sym_DASH, 1877, 2, mozjs_anon_sym_EQ_EQ, mozjs_anon_sym_BANG_EQ, 1879, 2,
      mozjs_anon_sym_EQ_EQ_EQ, mozjs_anon_sym_BANG_EQ_EQ, 1853, 3, mozjs_anon_sym_in,
      mozjs_anon_sym_LT, mozjs_anon_sym_GT, 1875, 3, mozjs_anon_sym_LT_EQ, mozjs_anon_sym_GT_EQ,
      mozjs_anon_sym_instanceof, 1708, 5, mozjs_sym__automatic_semicolon, mozjs_anon_sym_COMMA,
      mozjs_anon_sym_of, mozjs_anon_sym_SEMI, mozjs_anon_sym_BQUOTE]"

definition mozjs_small_run_21193 :: "nat list" where
  "mozjs_small_run_21193 =
    [15, 1827, 1, mozjs_anon_sym_LPAREN, 1829, 1, mozjs_anon_sym_LBRACK, 1831, 1,
      mozjs_anon_sym_DOT, 1845, 1, mozjs_sym_optional_chain, 1859, 1, mozjs_anon_sym_GT_GT, 1871,
      1, mozjs_anon_sym_PERCENT, 1873, 1, mozjs_anon_sym_STAR_STAR, 804, 1, mozjs_sym_arguments,
      5, 2, mozjs_sym_html_comment, mozjs_sym_comment, 1849, 2, mozjs_anon_sym_PLUS_PLUS,
      mozjs_anon_sym_DASH_DASH, 1851, 2, mozjs_anon_sym_STAR, mozjs_anon_sym_SLASH, 1861, 2,
      mozjs_anon_sym_GT_GT_GT, mozjs_anon_sym_LT_LT, 1869, 2, mozjs_anon_sym_PLUS,
      mozjs_anon_sym_DASH, 1797, 7, mozjs_anon_sym_in, mozjs_anon_sym_LT, mozjs_anon_sym_GT,
      mozjs_anon_sym_AMP, mozjs_anon_sym_PIPE, mozjs_anon_sym_EQ_EQ, mozjs_anon_sym_BANG_EQ,
      1789, 15, mozjs_sym__automatic_semicolon, mozjs_sym__ternary_qmark, mozjs_anon_sym_COMMA,
      mozjs_anon_sym_of, mozjs_anon_sym_SEMI, mozjs_anon_sym_AMP_AMP, mozjs_anon_sym_PIPE_PIPE,
      mozjs_anon_sym_CARET, mozjs_anon_sym_LT_EQ, mozjs_anon_sym_EQ_EQ_EQ,
      mozjs_anon_sym_BANG_EQ_EQ, mozjs_anon_sym_GT_EQ, mozjs_anon_sym_QMARK_QMARK,
      mozjs_anon_sym_instanceof, mozjs_anon_sym_BQUOTE]"

definition mozjs_small_run_21264 :: "nat list" where
  "mozjs_small_run_21264 =
    [10, 1827, 1, mozjs_anon_sym_LPAREN, 1829, 1, mozjs_anon_sym_LBRACK, 1831, 1,
      mozjs_anon_sym_DOT, 1845, 1, mozjs_sym_optional_chain, 1873, 1, mozjs_anon_sym_STAR_STAR,
      804, 1, mozjs_sym_arguments, 5, 2, mozjs_sym_html_comment, mozjs_sym_comment, 1849, 2,
      mozjs_anon_sym_PLUS_PLUS, mozjs_anon_sym_DASH_DASH, 1797, 12, mozjs_anon_sym_STAR,
      mozjs_anon_sym_in, mozjs_anon_sym_LT, mozjs_anon_sym_GT, mozjs_anon_sym_GT_GT,
      mozjs_anon_sym_AMP, mozjs_anon_sym_PIPE, mozjs_anon_sym_PLUS, mozjs_anon_sym_DASH,
      mozjs_anon_sym_SLASH, mozjs_anon_sym_EQ_EQ, mozjs_anon_sym_BANG_EQ, 1789, 18,
      mozjs_sym__automatic_semicolon, mozjs_sym__ternary_qmark, mozjs_anon_sym_COMMA,
      mozjs_anon_sym_of, mozjs_anon_sym_SEMI, mozjs_anon_sym_AMP_AMP, mozjs_anon_sym_PIPE_PIPE,
      mozjs_anon_sym_GT_GT_GT, mozjs_anon_sym_LT_LT, mozjs_anon_sym_CARET,
      mozjs_anon_sym_PERCENT, mozjs_anon_sym_LT_EQ, mozjs_anon_sym_EQ_EQ_EQ,
      mozjs_anon_sym_BANG_EQ_EQ, mozjs_anon_sym_GT_EQ, mozjs_anon_sym_QMARK_QMARK,
      mozjs_anon_sym_instanceof, mozjs_anon_sym_BQUOTE]"

definition mozjs_small_run_21325 :: "nat list" where
  "mozjs_small_run_21325 =
    [3, 5, 2, mozjs_sym_html_comment, mozjs_sym_comment, 1702, 12, mozjs_anon_sym_STAR,
      mozjs_anon_sym_in, mozjs_anon_sym_LT, mozjs_anon_sym_GT, mozjs_anon_sym_GT_GT,
      mozjs_anon_sym_AMP, mozjs_anon_sym_PIPE, mozjs_anon_sym_PLUS, mozjs_anon_sym_DASH,
      mozjs_anon_sym_SLASH, mozjs_anon_sym_EQ_EQ, mozjs_anon_sym_BANG_EQ, 1704, 26,
      mozjs_sym__automatic_semicolon, mozjs_sym__ternary_qmark, mozjs_anon_sym_COMMA,
      mozjs_anon_sym_RBRACE, mozjs_anon_sym_of, mozjs_anon_sym_LPAREN, mozjs_anon_sym_SEMI,
      mozjs_anon_sym_LBRACK, mozjs_anon_sym_DOT, mozjs_sym_optional_chain,
      mozjs_anon_sym_AMP_AMP, mozjs_anon_sym_PIPE_PIPE, mozjs_anon_sym_GT_GT_GT,
      mozjs_anon_sym_LT_LT, mozjs_anon_sym_CARET, mozjs_anon_sym_PERCENT,
      mozjs_anon_sym_STAR_STAR, mozjs_anon_sym_LT_EQ, mozjs_anon_sym_EQ_EQ_EQ,
      mozjs_anon_sym_BANG_EQ_EQ, mozjs_anon_sym_GT_EQ, mozjs_anon_sym_QMARK_QMARK,
      mozjs_anon_sym_instanceof, mozjs_anon_sym_PLUS_PLUS, mozjs_anon_sym_DASH_DASH,
      mozjs_anon_sym_BQUOTE]"

definition mozjs_small_run_21372 :: "nat list" where
  "mozjs_small_run_21372 =
    [21, 1827, 1, mozjs_anon_sym_LPAREN, 1829, 1, mozjs_anon_sym_LBRACK, 1831, 1,
      mozjs_anon_sym_DOT, 1845, 1, mozjs_sym_optional_chain, 1859, 1, mozjs_anon_sym_GT_GT, 1863,
      1, mozjs_anon_sym_AMP, 1865, 1, mozjs_anon_sym_CARET, 1867, 1, mozjs_anon_sym_PIPE, 1871,
      1, mozjs_anon_sym_PERCENT, 1873, 1, mozjs_anon_sym_STAR_STAR, 804, 1, mozjs_sym_arguments,
      5, 2, mozjs_sym_html_comment, mozjs_sym_comment, 1849, 2, mozjs_anon_sym_PLUS_PLUS,
      mozjs_anon_sym_DASH_DASH, 1851, 2, mozjs_anon_sym_STAR, mozjs_anon_sym_SLASH, 1861, 2,
      mozjs_anon_sym_GT_GT_GT, mozjs_anon_sym_LT_LT, 1869, 2, mozjs_anon_sym_PLUS,
      mozjs_anon_sym_DASH, 1877, 2, mozjs_anon_sym_EQ_EQ, mozjs_anon_sym_BANG_EQ, 1879, 2,
      mozjs_anon_sym_EQ_EQ_EQ, mozjs_anon_sym_BANG_EQ_EQ, 1853, 3, mozjs_anon_sym_in,
      mozjs_anon_sym_LT, mozjs_anon_sym_GT, 1875, 3, mozjs_anon_sym_LT_EQ, mozjs_anon_sym_GT_EQ,
      mozjs_anon_sym_instanceof, 1789, 9, mozjs_sym__automatic_semicolon,
      mozjs_sym__ternary_qmark, mozjs_anon_sym_COMMA, mozjs_anon_sym_of, mozjs_anon_sym_SEMI,
      mozjs_anon_sym_AMP_AMP, mozjs_anon_sym_PIPE_PIPE, mozjs_anon_sym_QMARK_QMARK,
      mozjs_anon_sym_BQUOTE]"

definition mozjs_small_run_21455 :: "nat list" where
  "mozjs_small_run_21455 =
    [22, 1827, 1, mozjs_anon_sym_LPAREN, 1829, 1, mozjs_anon_sym_LBRACK, 1831, 1,
      mozjs_anon_sym_DOT, 1845, 1, mozjs_sym_optional_chain, 1855, 1, mozjs_anon_sym_AMP_AMP,
      1859, 1, mozjs_anon_sym_GT_GT, 1863, 1, mozjs_anon_sym_AMP, 1865, 1, mozjs_anon_sym_CARET,
      1867, 1, mozjs_anon_sym_PIPE, 1871, 1, mozjs_anon_sym_PERCENT, 1873, 1,
      mozjs_anon_sym_STAR_STAR, 804, 1, mozjs_sym_arguments, 5, 2, mozjs_sym_html_comment,
      mozjs_sym_comment, 1849, 2, mozjs_anon_sym_PLUS_PLUS, mozjs_anon_sym_DASH_DASH, 1851, 2,
      mozjs_anon_sym_STAR, mozjs_anon_sym_SLASH, 1861, 2, mozjs_anon_sym_GT_GT_GT,
      mozjs_anon_sym_LT_LT, 1869, 2, mozjs_anon_sym_PLUS, mozjs_anon_sym_DASH, 1877, 2,
      mozjs_anon_sym_EQ_EQ, mozjs_anon_sym_BANG_EQ, 1879, 2, mozjs_anon_sym_EQ_EQ_EQ,
      mozjs_anon_sym_BANG_EQ_EQ, 1853, 3, mozjs_anon_sym_in, mozjs_anon_sym_LT,
      mozjs_anon_sym_GT, 1875, 3, mozjs_anon_sym_LT_EQ, mozjs_anon_sym_GT_EQ,
      mozjs_anon_sym_instanceof, 1789, 8, mozjs_sym__automatic_semicolon,
      mozjs_sym__ternary_qmark, mozjs_anon_sym_COMMA, mozjs_anon_sym_of, mozjs_anon_sym_SEMI,
      mozjs_anon_sym_PIPE_PIPE, mozjs_anon_sym_QMARK_QMARK, mozjs_anon_sym_BQUOTE]"

definition mozjs_small_run_21540 :: "nat list" where
  "mozjs_small_run_21540 =
    [13, 1827, 1, mozjs_anon_sym_LPAREN, 1829, 1, mozjs_anon_sym_LBRACK, 1831, 1,
      mozjs_anon_sym_DOT, 1845, 1, mozjs_sym_optional_chain, 1871, 1, mozjs_anon_sym_PERCENT,
      1873, 1, mozjs_anon_sym_STAR_STAR, 804, 1, mozjs_sym_arguments, 5, 2,
      mozjs_sym_html_comment, mozjs_sym_comment, 1849, 2, mozjs_anon_sym_PLUS_PLUS,
      mozjs_anon_sym_DASH_DASH, 1851, 2, mozjs_anon_sym_STAR, mozjs_anon_sym_SLASH, 1869, 2,
      mozjs_anon_sym_PLUS, mozjs_anon_sym_DASH, 1797, 8, mozjs_anon_sym_in, mozjs_anon_sym_LT,
      mozjs_anon_sym_GT, mozjs_anon_sym_GT_GT, mozjs_anon_sym_AMP, mozjs_anon_sym_PIPE,
      mozjs_anon_sym_EQ_EQ, mozjs_anon_sym_BANG_EQ, 1789, 17, mozjs_sym__automatic_semicolon,
      mozjs_sym__ternary_qmark, mozjs_anon_sym_COMMA, mozjs_anon_sym_of, mozjs_anon_sym_SEMI,
      mozjs_anon_sym_AMP_AMP, mozjs_anon_sym_PIPE_PIPE, mozjs_anon_sym_GT_GT_GT,
      mozjs_anon_sym_LT_LT, mozjs_anon_sym_CARET, mozjs_anon_sym_LT_EQ, mozjs_anon_sym_EQ_EQ_EQ,
      mozjs_anon_sym_BANG_EQ_EQ, mozjs_anon_sym_GT_EQ, mozjs_anon_sym_QMARK_QMARK,
      mozjs_anon_sym_instanceof, mozjs_anon_sym_BQUOTE]"

definition mozjs_small_run_21607 :: "nat list" where
  "mozjs_small_run_21607 =
    [19, 1827, 1, mozjs_anon_sym_LPAREN, 1829, 1, mozjs_anon_sym_LBRACK, 1831, 1,
      mozjs_anon_sym_DOT, 1845, 1, mozjs_sym_optional_chain, 1859, 1, mozjs_anon_sym_GT_GT, 1871,
      1, mozjs_anon_sym_PERCENT, 1873, 1, mozjs_anon_sym_STAR_STAR, 804, 1, mozjs_sym_arguments,
      5, 2, mozjs_sym_html_comment, mozjs_sym_comment, 1797, 2, mozjs_anon_sym_AMP,
      mozjs_anon_sym_PIPE, 1849, 2, mozjs_anon_sym_PLUS_PLUS, mozjs_anon_sym_DASH_DASH, 1851, 2,
      mozjs_anon_sym_STAR, mozjs_anon_sym_SLASH, 1861, 2, mozjs_anon_sym_GT_GT_GT,
      mozjs_anon_sym_LT_LT, 1869, 2, mozjs_anon_sym_PLUS, mozjs_anon_sym_DASH, 1877, 2,
      mozjs_anon_sym_EQ_EQ, mozjs_anon_sym_BANG_EQ, 1879, 2, mozjs_anon_sym_EQ_EQ_EQ,
      mozjs_anon_sym_BANG_EQ_EQ, 1853, 3, mozjs_anon_sym_in, mozjs_anon_sym_LT,
      mozjs_anon_sym_GT, 1875, 3, mozjs_anon_sym_LT_EQ, mozjs_anon_sym_GT_EQ,
      mozjs_anon_sym_instanceof, 1789, 10, mozjs_sym__automatic_semicolon,
      mozjs_sym__ternary_qmark, mozjs_anon_sym_COMMA, mozjs_anon_sym_of, mozjs_anon_sym_SEMI,
      mozjs_anon_sym_AMP_AMP, mozjs_anon_sym_PIPE_PIPE, mozjs_anon_sym_CARET,
      mozjs_anon_sym_QMARK_QMARK, mozjs_anon_sym_BQUOTE]"

definition mozjs_small_run_21686 :: "nat list" where
  "mozjs_small_run_21686 =
    [20, 1797, 1, mozjs_anon_sym_PIPE, 1827, 1, mozjs_anon_sym_LPAREN, 1829, 1,
      mozjs_anon_sym_LBRACK, 1831, 1, mozjs_anon_sym_DOT, 1845, 1, mozjs_sym_optional_chain,
      1859, 1, mozjs_anon_sym_GT_GT, 1863, 1, mozjs_anon_sym_AMP, 1871, 1,
      mozjs_anon_sym_PERCENT, 1873, 1, mozjs_anon_sym_STAR_STAR, 804, 1, mozjs_sym_arguments, 5,
      2, mozjs_sym_html_comment, mozjs_sym_comment, 1849, 2, mozjs_anon_sym_PLUS_PLUS,
      mozjs_anon_sym_DASH_DASH, 1851, 2, mozjs_anon_sym_STAR, mozjs_anon_sym_SLASH, 1861, 2,
      mozjs_anon_sym_GT_GT_GT, mozjs_anon_sym_LT_LT, 1869, 2, mozjs_anon_sym_PLUS,
      mozjs_anon_sym_DASH, 1877, 2, mozjs_anon_sym_EQ_EQ, mozjs_anon_sym_BANG_EQ, 1879, 2,
      mozjs_anon_sym_EQ_EQ_EQ, mozjs_anon_sym_BANG_EQ_EQ, 1853, 3, mozjs_anon_sym_in,
      mozjs_anon_sym_LT, mozjs_anon_sym_GT, 1875, 3, mozjs_anon_sym_LT_EQ, mozjs_anon_sym_GT_EQ,
      mozjs_anon_sym_instanceof, 1789, 10, mozjs_sym__automatic_semicolon,
      mozjs_sym__ternary_qmark, mozjs_anon_sym_COMMA, mozjs_anon_sym_of, mozjs_anon_sym_SEMI,
      mozjs_anon_sym_AMP_AMP, mozjs_anon_sym_PIPE_PIPE, mozjs_anon_sym_CARET,
      mozjs_anon_sym_QMARK_QMARK, mozjs_anon_sym_BQUOTE]"

definition mozjs_small_run_21767 :: "nat list" where
  "mozjs_small_run_21767 =
    [21, 1797, 1, mozjs_anon_sym_PIPE, 1827, 1, mozjs_anon_sym_LPAREN, 1829, 1,
      mozjs_anon_sym_LBRACK, 1831, 1, mozjs_anon_sym_DOT, 1845, 1, mozjs_sym_optional_chain,
      1859, 1, mozjs_anon_sym_GT_GT, 1863, 1, mozjs_anon_sym_AMP, 1865, 1, mozjs_anon_sym_CARET,
      1871, 1, mozjs_anon_sym_PERCENT, 1873, 1, mozjs_anon_sym_STAR_STAR, 804, 1,
      mozjs_sym_arguments, 5, 2, mozjs_sym_html_comment, mozjs_sym_comment, 1849, 2,
      mozjs_anon_sym_PLUS_PLUS, mozjs_anon_sym_DASH_DASH, 1851, 2, mozjs_anon_sym_STAR,
      mozjs_anon_sym_SLASH, 1861, 2, mozjs_anon_sym_GT_GT_GT, mozjs_anon_sym_LT_LT, 1869, 2,
      mozjs_anon_sym_PLUS, mozjs_anon_sym_DASH, 1877, 2, mozjs_anon_sym_EQ_EQ,
      mozjs_anon_sym_BANG_EQ, 1879, 2, mozjs_anon_sym_EQ_EQ_EQ, mozjs_anon_sym_BANG_EQ_EQ, 1853,
      3, mozjs_anon_sym_in, mozjs_anon_sym_LT, mozjs_anon_sym_GT, 1875, 3, mozjs_anon_sym_LT_EQ,
      mozjs_anon_sym_GT_EQ, mozjs_anon_sym_instanceof, 1789, 9, mozjs_sym__automatic_semicolon,
      mozjs_sym__ternary_qmark, mozjs_anon_sym_COMMA, mozjs_anon_sym_of, mozjs_anon_sym_SEMI,
      mozjs_anon_sym_AMP_AMP, mozjs_anon_sym_PIPE_PIPE, mozjs_anon_sym_QMARK_QMARK,
      mozjs_anon_sym_BQUOTE]"

definition mozjs_small_run_21850 :: "nat list" where
  "mozjs_small_run_21850 =
    [12, 1827, 1, mozjs_anon_sym_LPAREN, 1829, 1, mozjs_anon_sym_LBRACK, 1831, 1,
      mozjs_anon_sym_DOT, 1845, 1, mozjs_sym_optional_chain, 1871, 1, mozjs_anon_sym_PERCENT,
      1873, 1, mozjs_anon_sym_STAR_STAR, 804, 1, mozjs_sym_arguments, 5, 2,
      mozjs_sym_html_comment, mozjs_sym_comment, 1849, 2, mozjs_anon_sym_PLUS_PLUS,
      mozjs_anon_sym_DASH_DASH, 1851, 2, mozjs_anon_sym_STAR, mozjs_anon_sym_SLASH, 1797, 10,
      mozjs_anon_sym_in, mozjs_anon_sym_LT, mozjs_anon_sym_GT, mozjs_anon_sym_GT_GT,
      mozjs_anon_sym_AMP, mozjs_anon_sym_PIPE, mozjs_anon_sym_PLUS, mozjs_anon_sym_DASH,
      mozjs_anon_sym_EQ_EQ, mozjs_anon_sym_BANG_EQ, 1789, 17, mozjs_sym__automatic_semicolon,
      mozjs_sym__ternary_qmark, mozjs_anon_sym_COMMA, mozjs_anon_sym_of, mozjs_anon_sym_SEMI,
      mozjs_anon_sym_AMP_AMP, mozjs_anon_sym_PIPE_PIPE, mozjs_anon_sym_GT_GT_GT,
      mozjs_anon_sym_LT_LT, mozjs_anon_sym_CARET, mozjs_anon_sym_LT_EQ, mozjs_anon_sym_EQ_EQ_EQ,
      mozjs_anon_sym_BANG_EQ_EQ, mozjs_anon_sym_GT_EQ, mozjs_anon_sym_QMARK_QMARK,
      mozjs_anon_sym_instanceof, mozjs_anon_sym_BQUOTE]"

definition mozjs_small_run_21915 :: "nat list" where
  "mozjs_small_run_21915 =
    [10, 1827, 1, mozjs_anon_sym_LPAREN, 1829, 1, mozjs_anon_sym_LBRACK, 1831, 1,
      mozjs_anon_sym_DOT, 1845, 1, mozjs_sym_optional_chain, 1873, 1, mozjs_anon_sym_STAR_STAR,
      804, 1, mozjs_sym_arguments, 5, 2, mozjs_sym_html_comment, mozjs_sym_comment, 1849, 2,
      mozjs_anon_sym_PLUS_PLUS, mozjs_anon_sym_DASH_DASH, 1797, 12, mozjs_anon_sym_STAR,
      mozjs_anon_sym_in, mozjs_anon_sym_LT, mozjs_anon_sym_GT, mozjs_anon_sym_GT_GT,
      mozjs_anon_sym_AMP, mozjs_anon_sym_PIPE, mozjs_anon_sym_PLUS, mozjs_anon_sym_DASH,
      mozjs_anon_sym_SLASH, mozjs_anon_sym_EQ_EQ, mozjs_anon_sym_BANG_EQ, 1789, 18,
      mozjs_sym__automatic_semicolon, mozjs_sym__ternary_qmark, mozjs_anon_sym_COMMA,
      mozjs_anon_sym_of, mozjs_anon_sym_SEMI, mozjs_anon_sym_AMP_AMP, mozjs_anon_sym_PIPE_PIPE,
      mozjs_anon_sym_GT_GT_GT, mozjs_anon_sym_LT_LT, mozjs_anon_sym_CARET,
      mozjs_anon_sym_PERCENT, mozjs_anon_sym_LT_EQ, mozjs_anon_sym_EQ_EQ_EQ,
      mozjs_anon_sym_BANG_EQ_EQ, mozjs_anon_sym_GT_EQ, mozjs_anon_sym_QMARK_QMARK,
      mozjs_anon_sym_instanceof, mozjs_anon_sym_BQUOTE]"

definition mozjs_small_run_21976 :: "nat list" where
  "mozjs_small_run_21976 =
    [17, 1827, 1, mozjs_anon_sym_LPAREN, 1829, 1, mozjs_anon_sym_LBRACK, 1831, 1,
      mozjs_anon_sym_DOT, 1845, 1, mozjs_sym_optional_chain, 1859, 1, mozjs_anon_sym_GT_GT, 1871,
      1, mozjs_anon_sym_PERCENT, 1873, 1, mozjs_anon_sym_STAR_STAR, 804, 1, mozjs_sym_arguments,
      5, 2, mozjs_sym_html_comment, mozjs_sym_comment, 1849, 2, mozjs_anon_sym_PLUS_PLUS,
      mozjs_anon_sym_DASH_DASH, 1851, 2, mozjs_anon_sym_STAR, mozjs_anon_sym_SLASH, 1861, 2,
      mozjs_anon_sym_GT_GT_GT, mozjs_anon_sym_LT_LT, 1869, 2, mozjs_anon_sym_PLUS,
      mozjs_anon_sym_DASH, 1853, 3, mozjs_anon_sym_in, mozjs_anon_sym_LT, mozjs_anon_sym_GT,
      1875, 3, mozjs_anon_sym_LT_EQ, mozjs_anon_sym_GT_EQ, mozjs_anon_sym_instanceof, 1797, 4,
      mozjs_anon_sym_AMP, mozjs_anon_sym_PIPE, mozjs_anon_sym_EQ_EQ, mozjs_anon_sym_BANG_EQ,
      1789, 12, mozjs_sym__automatic_semicolon, mozjs_sym__ternary_qmark, mozjs_anon_sym_COMMA,
      mozjs_anon_sym_of, mozjs_anon_sym_SEMI, mozjs_anon_sym_AMP_AMP, mozjs_anon_sym_PIPE_PIPE,
      mozjs_anon_sym_CARET, mozjs_anon_sym_EQ_EQ_EQ, mozjs_anon_sym_BANG_EQ_EQ,
      mozjs_anon_sym_QMARK_QMARK, mozjs_anon_sym_BQUOTE]"

definition mozjs_small_run_22051 :: "nat list" where
  "mozjs_small_run_22051 =
    [23, 1827, 1, mozjs_anon_sym_LPAREN, 1829, 1, mozjs_anon_sym_LBRACK, 1831, 1,
      mozjs_anon_sym_DOT, 1845, 1, mozjs_sym_optional_chain, 1855, 1, mozjs_anon_sym_AMP_AMP,
      1857, 1, mozjs_anon_sym_PIPE_PIPE, 1859, 1, mozjs_anon_sym_GT_GT, 1863, 1,
      mozjs_anon_sym_AMP, 1865, 1, mozjs_anon_sym_CARET, 1867, 1, mozjs_anon_sym_PIPE, 1871, 1,
      mozjs_anon_sym_PERCENT, 1873, 1, mozjs_anon_sym_STAR_STAR, 804, 1, mozjs_sym_arguments, 5,
      2, mozjs_sym_html_comment, mozjs_sym_comment, 1849, 2, mozjs_anon_sym_PLUS_PLUS,
      mozjs_anon_sym_DASH_DASH, 1851, 2, mozjs_anon_sym_STAR, mozjs_anon_sym_SLASH, 1861, 2,
      mozjs_anon_sym_GT_GT_GT, mozjs_anon_sym_LT_LT, 1869, 2, mozjs_anon_sym_PLUS,
      mozjs_anon_sym_DASH, 1877, 2, mozjs_anon_sym_EQ_EQ, mozjs_anon_sym_BANG_EQ, 1879, 2,
      mozjs_anon_sym_EQ_EQ_EQ, mozjs_anon_sym_BANG_EQ_EQ, 1853, 3, mozjs_anon_sym_in,
      mozjs_anon_sym_LT, mozjs_anon_sym_GT, 1875, 3, mozjs_anon_sym_LT_EQ, mozjs_anon_sym_GT_EQ,
      mozjs_anon_sym_instanceof, 1789, 7, mozjs_sym__automatic_semicolon,
      mozjs_sym__ternary_qmark, mozjs_anon_sym_COMMA, mozjs_anon_sym_of, mozjs_anon_sym_SEMI,
      mozjs_anon_sym_QMARK_QMARK, mozjs_anon_sym_BQUOTE]"

definition mozjs_small_run_22138 :: "nat list" where
  "mozjs_small_run_22138 =
    [25, 1827, 1, mozjs_anon_sym_LPAREN, 1829, 1, mozjs_anon_sym_LBRACK, 1831, 1,
      mozjs_anon_sym_DOT, 1845, 1, mozjs_sym_optional_chain, 1855, 1, mozjs_anon_sym_AMP_AMP,
      1857, 1, mozjs_anon_sym_PIPE_PIPE, 1859, 1, mozjs_anon_sym_GT_GT, 1863, 1,
      mozjs_anon_sym_AMP, 1865, 1, mozjs_anon_sym_CARET, 1867, 1, mozjs_anon_sym_PIPE, 1871, 1,
      mozjs_anon_sym_PERCENT, 1873, 1, mozjs_anon_sym_STAR_STAR, 1881, 1,
      mozjs_anon_sym_QMARK_QMARK, 1883, 1, mozjs_sym__ternary_qmark, 804, 1, mozjs_sym_arguments,
      5, 2, mozjs_sym_html_comment, mozjs_sym_comment, 1849, 2, mozjs_anon_sym_PLUS_PLUS,
      mozjs_anon_sym_DASH_DASH, 1851, 2, mozjs_anon_sym_STAR, mozjs_anon_sym_SLASH, 1861, 2,
      mozjs_anon_sym_GT_GT_GT, mozjs_anon_sym_LT_LT, 1869, 2, mozjs_anon_sym_PLUS,
      mozjs_anon_sym_DASH, 1877, 2, mozjs_anon_sym_EQ_EQ, mozjs_anon_sym_BANG_EQ, 1879, 2,
      mozjs_anon_sym_EQ_EQ_EQ, mozjs_anon_sym_BANG_EQ_EQ, 1853, 3, mozjs_anon_sym_in,
      mozjs_anon_sym_LT, mozjs_anon_sym_GT, 1875, 3, mozjs_anon_sym_LT_EQ, mozjs_anon_sym_GT_EQ,
      mozjs_anon_sym_instanceof, 1839, 5, mozjs_sym__automatic_semicolon, mozjs_anon_sym_COMMA,
      mozjs_anon_sym_of, mozjs_anon_sym_SEMI, mozjs_anon_sym_BQUOTE]"

definition mozjs_small_run_22229 :: "nat list" where
  "mozjs_small_run_22229 =
    [25, 1827, 1, mozjs_anon_sym_LPAREN, 1829, 1, mozjs_anon_sym_LBRACK, 1831, 1,
      mozjs_anon_sym_DOT, 1845, 1, mozjs_sym_optional_chain, 1855, 1, mozjs_anon_sym_AMP_AMP,
      1857, 1, mozjs_anon_sym_PIPE_PIPE, 1859, 1, mozjs_anon_sym_GT_GT, 1863, 1,
      mozjs_anon_sym_AMP, 1865, 1, mozjs_anon_sym_CARET, 1867, 1, mozjs_anon_sym_PIPE, 1871, 1,
      mozjs_anon_sym_PERCENT, 1873, 1, mozjs_anon_sym_STAR_STAR, 1881, 1,
      mozjs_anon_sym_QMARK_QMARK, 1883, 1, mozjs_sym__ternary_qmark, 804, 1, mozjs_sym_arguments,
      5, 2, mozjs_sym_html_comment, mozjs_sym_comment, 1849, 2, mozjs_anon_sym_PLUS_PLUS,
      mozjs_anon_sym_DASH_DASH, 1851, 2, mozjs_anon_sym_STAR, mozjs_anon_sym_SLASH, 1861, 2,
      mozjs_anon_sym_GT_GT_GT, mozjs_anon_sym_LT_LT, 1869, 2, mozjs_anon_sym_PLUS,
      mozjs_anon_sym_DASH, 1877, 2, mozjs_anon_sym_EQ_EQ, mozjs_anon_sym_BANG_EQ, 1879, 2,
      mozjs_anon_sym_EQ_EQ_EQ, mozjs_anon_sym_BANG_EQ_EQ, 1853, 3, mozjs_anon_sym_in,
      mozjs_anon_sym_LT, mozjs_anon_sym_GT, 1875, 3, mozjs_anon_sym_LT_EQ, mozjs_anon_sym_GT_EQ,
      mozjs_anon_sym_instanceof, 1752, 5, mozjs_sym__automatic_semicolon, mozjs_anon_sym_COMMA,
      mozjs_anon_sym_of, mozjs_anon_sym_SEMI, mozjs_anon_sym_BQUOTE]"

definition mozjs_small_run_22320 :: "nat list" where
  "mozjs_small_run_22320 =
    [25, 1827, 1, mozjs_anon_sym_LPAREN, 1829, 1, mozjs_anon_sym_LBRACK, 1831, 1,
      mozjs_anon_sym_DOT, 1845, 1, mozjs_sym_optional_chain, 1891, 1, mozjs_anon_sym_AMP_AMP,
      1893, 1, mozjs_anon_sym_PIPE_PIPE, 1895, 1, mozjs_anon_sym_GT_GT, 1899, 1,
      mozjs_anon_sym_AMP, 1901, 1, mozjs_anon_sym_CARET, 1903, 1, mozjs_anon_sym_PIPE, 1907, 1,
      mozjs_anon_sym_PERCENT, 1909, 1, mozjs_anon_sym_STAR_STAR, 1917, 1,
      mozjs_anon_sym_QMARK_QMARK, 1919, 1, mozjs_sym__ternary_qmark, 804, 1, mozjs_sym_arguments,
      5, 2, mozjs_sym_html_comment, mozjs_sym_comment, 1849, 2, mozjs_anon_sym_PLUS_PLUS,
      mozjs_anon_sym_DASH_DASH, 1887, 2, mozjs_anon_sym_STAR, mozjs_anon_sym_SLASH, 1897, 2,
      mozjs_anon_sym_GT_GT_GT, mozjs_anon_sym_LT_LT, 1905, 2, mozjs_anon_sym_PLUS,
      mozjs_anon_sym_DASH, 1913, 2, mozjs_anon_sym_EQ_EQ, mozjs_anon_sym_BANG_EQ, 1915, 2,
      mozjs_anon_sym_EQ_EQ_EQ, mozjs_anon_sym_BANG_EQ_EQ, 1889, 3, mozjs_anon_sym_in,
      mozjs_anon_sym_LT, mozjs_anon_sym_GT, 1911, 3, mozjs_anon_sym_LT_EQ, mozjs_anon_sym_GT_EQ,
      mozjs_anon_sym_instanceof, 1837, 5, mozjs_sym__automatic_semicolon, mozjs_anon_sym_COMMA,
      mozjs_anon_sym_RBRACE, mozjs_anon_sym_SEMI, mozjs_anon_sym_BQUOTE]"

definition mozjs_small_run_22411 :: "nat list" where
  "mozjs_small_run_22411 =
    [3, 5, 2, mozjs_sym_html_comment, mozjs_sym_comment, 1706, 12, mozjs_anon_sym_STAR,
      mozjs_anon_sym_in, mozjs_anon_sym_LT, mozjs_anon_sym_GT, mozjs_anon_sym_GT_GT,
      mozjs_anon_sym_AMP, mozjs_anon_sym_PIPE, mozjs_anon_sym_PLUS, mozjs_anon_sym_DASH,
      mozjs_anon_sym_SLASH, mozjs_anon_sym_EQ_EQ, mozjs_anon_sym_BANG_EQ, 1708, 26,
      mozjs_sym__automatic_semicolon, mozjs_sym__ternary_qmark, mozjs_anon_sym_COMMA,
      mozjs_anon_sym_RBRACE, mozjs_anon_sym_of, mozjs_anon_sym_LPAREN, mozjs_anon_sym_SEMI,
      mozjs_anon_sym_LBRACK, mozjs_anon_sym_DOT, mozjs_sym_optional_chain,
      mozjs_anon_sym_AMP_AMP, mozjs_anon_sym_PIPE_PIPE, mozjs_anon_sym_GT_GT_GT,
      mozjs_anon_sym_LT_LT, mozjs_anon_sym_CARET, mozjs_anon_sym_PERCENT,
      mozjs_anon_sym_STAR_STAR, mozjs_anon_sym_LT_EQ, mozjs_anon_sym_EQ_EQ_EQ,
      mozjs_anon_sym_BANG_EQ_EQ, mozjs_anon_sym_GT_EQ, mozjs_anon_sym_QMARK_QMARK,
      mozjs_anon_sym_instanceof, mozjs_anon_sym_PLUS_PLUS, mozjs_anon_sym_DASH_DASH,
      mozjs_anon_sym_BQUOTE]"

definition mozjs_small_run_22458 :: "nat list" where
  "mozjs_small_run_22458 =
    [25, 1827, 1, mozjs_anon_sym_LPAREN, 1829, 1, mozjs_anon_sym_LBRACK, 1831, 1,
      mozjs_anon_sym_DOT, 1845, 1, mozjs_sym_optional_chain, 1855, 1, mozjs_anon_sym_AMP_AMP,
      1857, 1, mozjs_anon_sym_PIPE_PIPE, 1859, 1, mozjs_anon_sym_GT_GT, 1863, 1,
      mozjs_anon_sym_AMP, 1865, 1, mozjs_anon_sym_CARET, 1867, 1, mozjs_anon_sym_PIPE, 1871, 1,
      mozjs_anon_sym_PERCENT, 1873, 1, mozjs_anon_sym_STAR_STAR, 1881, 1,
      mozjs_anon_sym_QMARK_QMARK, 1883, 1, mozjs_sym__ternary_qmark, 804, 1, mozjs_sym_arguments,
      5, 2, mozjs_sym_html_comment, mozjs_sym_comment, 1849, 2, mozjs_anon_sym_PLUS_PLUS,
      mozjs_anon_sym_DASH_DASH, 1851, 2, mozjs_anon_sym_STAR, mozjs_anon_sym_SLASH, 1861, 2,
      mozjs_anon_sym_GT_GT_GT, mozjs_anon_sym_LT_LT, 1869, 2, mozjs_anon_sym_PLUS,
      mozjs_anon_sym_DASH, 1877, 2, mozjs_anon_sym_EQ_EQ, mozjs_anon_sym_BANG_EQ, 1879, 2,
      mozjs_anon_sym_EQ_EQ_EQ, mozjs_anon_sym_BANG_EQ_EQ, 1853, 3, mozjs_anon_sym_in,
      mozjs_anon_sym_LT, mozjs_anon_sym_GT, 1875, 3, mozjs_anon_sym_LT_EQ, mozjs_anon_sym_GT_EQ,
      mozjs_anon_sym_instanceof, 1720, 5, mozjs_sym__automatic_semicolon, mozjs_anon_sym_COMMA,
      mozjs_anon_sym_of, mozjs_anon_sym_SEMI, mozjs_anon_sym_BQUOTE]"

definition mozjs_small_run_22549 :: "nat list" where
  "mozjs_small_run_22549 =
    [25, 1827, 1, mozjs_anon_sym_LPAREN, 1829, 1, mozjs_anon_sym_LBRACK, 1831, 1,
      mozjs_anon_sym_DOT, 1845, 1, mozjs_sym_optional_chain, 1855, 1, mozjs_anon_sym_AMP_AMP,
      1857, 1, mozjs_anon_sym_PIPE_PIPE, 1859, 1, mozjs_anon_sym_GT_GT, 1863, 1,
      mozjs_anon_sym_AMP, 1865, 1, mozjs_anon_sym_CARET, 1867, 1, mozjs_anon_sym_PIPE, 1871, 1,
      mozjs_anon_sym_PERCENT, 1873, 1, mozjs_anon_sym_STAR_STAR, 1881, 1,
      mozjs_anon_sym_QMARK_QMARK, 1883, 1, mozjs_sym__ternary_qmark, 804, 1, mozjs_sym_arguments,
      5, 2, mozjs_sym_html_comment, mozjs_sym_comment, 1849, 2, mozjs_anon_sym_PLUS_PLUS,
      mozjs_anon_sym_DASH_DASH, 1851, 2, mozjs_anon_sym_STAR, mozjs_anon_sym_SLASH, 1861, 2,
      mozjs_anon_sym_GT_GT_GT, mozjs_anon_sym_LT_LT, 1869, 2, mozjs_anon_sym_PLUS,
      mozjs_anon_sym_DASH, 1877, 2, mozjs_anon_sym_EQ_EQ, mozjs_anon_sym_BANG_EQ, 1879, 2,
      mozjs_anon_sym_EQ_EQ_EQ, mozjs_anon_sym_BANG_EQ_EQ, 1853, 3, mozjs_anon_sym_in,
      mozjs_anon_sym_LT, mozjs_anon_sym_GT, 1875, 3, mozjs_anon_sym_LT_EQ, mozjs_anon_sym_GT_EQ,
      mozjs_anon_sym_instanceof, 1736, 5, mozjs_sym__automatic_semicolon, mozjs_anon_sym_COMMA,
      mozjs_anon_sym_of, mozjs_anon_sym_SEMI, mozjs_anon_sym_BQUOTE]"

definition mozjs_small_run_22640 :: "nat list" where
  "mozjs_small_run_22640 =
    [25, 1827, 1, mozjs_anon_sym_LPAREN, 1829, 1, mozjs_anon_sym_LBRACK, 1831, 1,
      mozjs_anon_sym_DOT, 1845, 1, mozjs_sym_optional_chain, 1855, 1, mozjs_anon_sym_AMP_AMP,
      1857, 1, mozjs_anon_sym_PIPE_PIPE, 1859, 1, mozjs_anon_sym_GT_GT, 1863, 1,
      mozjs_anon_sym_AMP, 1865, 1, mozjs_anon_sym_CARET, 1867, 1, mozjs_anon_sym_PIPE, 1871, 1,
      mozjs_anon_sym_PERCENT, 1873, 1, mozjs_anon_sym_STAR_STAR, 1881, 1,
      mozjs_anon_sym_QMARK_QMARK, 1883, 1, mozjs_sym__ternary_qmark, 804, 1, mozjs_sym_arguments,
      5, 2, mozjs_sym_html_comment, mozjs_sym_comment, 1849, 2, mozjs_anon_sym_PLUS_PLUS,
      mozjs_anon_sym_DASH_DASH, 1851, 2, mozjs_anon_sym_STAR, mozjs_anon_sym_SLASH, 1861, 2,
      mozjs_anon_sym_GT_GT_GT, mozjs_anon_sym_LT_LT, 1869, 2, mozjs_anon_sym_PLUS,
      mozjs_anon_sym_DASH, 1877, 2, mozjs_anon_sym_EQ_EQ, mozjs_anon_sym_BANG_EQ, 1879, 2,
      mozjs_anon_sym_EQ_EQ_EQ, mozjs_anon_sym_BANG_EQ_EQ, 1853, 3, mozjs_anon_sym_in,
      mozjs_anon_sym_LT, mozjs_anon_sym_GT, 1875, 3, mozjs_anon_sym_LT_EQ, mozjs_anon_sym_GT_EQ,
      mozjs_anon_sym_instanceof, 1768, 5, mozjs_sym__automatic_semicolon, mozjs_anon_sym_COMMA,
      mozjs_anon_sym_of, mozjs_anon_sym_SEMI, mozjs_anon_sym_BQUOTE]"

definition mozjs_small_run_22731 :: "nat list" where
  "mozjs_small_run_22731 =
    [3, 5, 2, mozjs_sym_html_comment, mozjs_sym_comment, 1684, 12, mozjs_anon_sym_STAR,
      mozjs_anon_sym_in, mozjs_anon_sym_LT, mozjs_anon_sym_GT, mozjs_anon_sym_GT_GT,
      mozjs_anon_sym_AMP, mozjs_anon_sym_PIPE, mozjs_anon_sym_PLUS, mozjs_anon_sym_DASH,
      mozjs_anon_sym_SLASH, mozjs_anon_sym_EQ_EQ, mozjs_anon_sym_BANG_EQ, 1686, 26,
      mozjs_sym__automatic_semicolon, mozjs_sym__ternary_qmark, mozjs_anon_sym_COMMA,
      mozjs_anon_sym_RBRACE, mozjs_anon_sym_of, mozjs_anon_sym_LPAREN, mozjs_anon_sym_SEMI,
      mozjs_anon_sym_LBRACK, mozjs_anon_sym_DOT, mozjs_sym_optional_chain,
      mozjs_anon_sym_AMP_AMP, mozjs_anon_sym_PIPE_PIPE, mozjs_anon_sym_GT_GT_GT,
      mozjs_anon_sym_LT_LT, mozjs_anon_sym_CARET, mozjs_anon_sym_PERCENT,
      mozjs_anon_sym_STAR_STAR, mozjs_anon_sym_LT_EQ, mozjs_anon_sym_EQ_EQ_EQ,
      mozjs_anon_sym_BANG_EQ_EQ, mozjs_anon_sym_GT_EQ, mozjs_anon_sym_QMARK_QMARK,
      mozjs_anon_sym_instanceof, mozjs_anon_sym_PLUS_PLUS, mozjs_anon_sym_DASH_DASH,
      mozjs_anon_sym_BQUOTE]"

definition mozjs_small_run_22778 :: "nat list" where
  "mozjs_small_run_22778 =
    [25, 1827, 1, mozjs_anon_sym_LPAREN, 1829, 1, mozjs_anon_sym_LBRACK, 1831, 1,
      mozjs_anon_sym_DOT, 1845, 1, mozjs_sym_optional_chain, 1891, 1, mozjs_anon_sym_AMP_AMP,
      1893, 1, mozjs_anon_sym_PIPE_PIPE, 1895, 1, mozjs_anon_sym_GT_GT, 1899, 1,
      mozjs_anon_sym_AMP, 1901, 1, mozjs_anon_sym_CARET, 1903, 1, mozjs_anon_sym_PIPE, 1907, 1,
      mozjs_anon_sym_PERCENT, 1909, 1, mozjs_anon_sym_STAR_STAR, 1917, 1,
      mozjs_anon_sym_QMARK_QMARK, 1919, 1, mozjs_sym__ternary_qmark, 804, 1, mozjs_sym_arguments,
      5, 2, mozjs_sym_html_comment, mozjs_sym_comment, 1849, 2, mozjs_anon_sym_PLUS_PLUS,
      mozjs_anon_sym_DASH_DASH, 1887, 2, mozjs_anon_sym_STAR, mozjs_anon_sym_SLASH, 1897, 2,
      mozjs_anon_sym_GT_GT_GT, mozjs_anon_sym_LT_LT, 1905, 2, mozjs_anon_sym_PLUS,
      mozjs_anon_sym_DASH, 1913, 2, mozjs_anon_sym_EQ_EQ, mozjs_anon_sym_BANG_EQ, 1915, 2,
      mozjs_anon_sym_EQ_EQ_EQ, mozjs_anon_sym_BANG_EQ_EQ, 1889, 3, mozjs_anon_sym_in,
      mozjs_anon_sym_LT, mozjs_anon_sym_GT, 1911, 3, mozjs_anon_sym_LT_EQ, mozjs_anon_sym_GT_EQ,
      mozjs_anon_sym_instanceof, 1708, 5, mozjs_sym__automatic_semicolon, mozjs_anon_sym_COMMA,
      mozjs_anon_sym_RBRACE, mozjs_anon_sym_SEMI, mozjs_anon_sym_BQUOTE]"

definition mozjs_small_run_22869 :: "nat list" where
  "mozjs_small_run_22869 =
    [15, 1827, 1, mozjs_anon_sym_LPAREN, 1829, 1, mozjs_anon_sym_LBRACK, 1831, 1,
      mozjs_anon_sym_DOT, 1845, 1, mozjs_sym_optional_chain, 1895, 1, mozjs_anon_sym_GT_GT, 1907,
      1, mozjs_anon_sym_PERCENT, 1909, 1, mozjs_anon_sym_STAR_STAR, 804, 1, mozjs_sym_arguments,
      5, 2, mozjs_sym_html_comment, mozjs_sym_comment, 1849, 2, mozjs_anon_sym_PLUS_PLUS,
      mozjs_anon_sym_DASH_DASH, 1887, 2, mozjs_anon_sym_STAR, mozjs_anon_sym_SLASH, 1897, 2,
      mozjs_anon_sym_GT_GT_GT, mozjs_anon_sym_LT_LT, 1905, 2, mozjs_anon_sym_PLUS,
      mozjs_anon_sym_DASH, 1797, 7, mozjs_anon_sym_in, mozjs_anon_sym_LT, mozjs_anon_sym_GT,
      mozjs_anon_sym_AMP, mozjs_anon_sym_PIPE, mozjs_anon_sym_EQ_EQ, mozjs_anon_sym_BANG_EQ,
      1789, 15, mozjs_sym__automatic_semicolon, mozjs_sym__ternary_qmark, mozjs_anon_sym_COMMA,
      mozjs_anon_sym_RBRACE, mozjs_anon_sym_SEMI, mozjs_anon_sym_AMP_AMP,
      mozjs_anon_sym_PIPE_PIPE, mozjs_anon_sym_CARET, mozjs_anon_sym_LT_EQ,
      mozjs_anon_sym_EQ_EQ_EQ, mozjs_anon_sym_BANG_EQ_EQ, mozjs_anon_sym_GT_EQ,
      mozjs_anon_sym_QMARK_QMARK, mozjs_anon_sym_instanceof, mozjs_anon_sym_BQUOTE]"

definition mozjs_small_run_22940 :: "nat list" where
  "mozjs_small_run_22940 =
    [25, 1827, 1, mozjs_anon_sym_LPAREN, 1829, 1, mozjs_anon_sym_LBRACK, 1831, 1,
      mozjs_anon_sym_DOT, 1845, 1, mozjs_sym_optional_chain, 1855, 1, mozjs_anon_sym_AMP_AMP,
      1857, 1, mozjs_anon_sym_PIPE_PIPE, 1859, 1, mozjs_anon_sym_GT_GT, 1863, 1,
      mozjs_anon_sym_AMP, 1865, 1, mozjs_anon_sym_CARET, 1867, 1, mozjs_anon_sym_PIPE, 1871, 1,
      mozjs_anon_sym_PERCENT, 1873, 1, mozjs_anon_sym_STAR_STAR, 1881, 1,
      mozjs_anon_sym_QMARK_QMARK, 1883, 1, mozjs_sym__ternary_qmark, 804, 1, mozjs_sym_arguments,
      5, 2, mozjs_sym_html_comment, mozjs_sym_comment, 1849, 2, mozjs_anon_sym_PLUS_PLUS,
      mozjs_anon_sym_DASH_DASH, 1851, 2, mozjs_anon_sym_STAR, mozjs_anon_sym_SLASH, 1861, 2,
      mozjs_anon_sym_GT_GT_GT, mozjs_anon_sym_LT_LT, 1869, 2, mozjs_anon_sym_PLUS,
      mozjs_anon_sym_DASH, 1877, 2, mozjs_anon_sym_EQ_EQ, mozjs_anon_sym_BANG_EQ, 1879, 2,
      mozjs_anon_sym_EQ_EQ_EQ, mozjs_anon_sym_BANG_EQ_EQ, 1853, 3, mozjs_anon_sym_in,
      mozjs_anon_sym_LT, mozjs_anon_sym_GT, 1875, 3, mozjs_anon_sym_LT_EQ, mozjs_anon_sym_GT_EQ,
      mozjs_anon_sym_instanceof, 1843, 5, mozjs_sym__automatic_semicolon, mozjs_anon_sym_COMMA,
      mozjs_anon_sym_of, mozjs_anon_sym_SEMI, mozjs_anon_sym_BQUOTE]"

definition mozjs_small_run_23031 :: "nat list" where
  "mozjs_small_run_23031 =
    [3, 5, 2, mozjs_sym_html_comment, mozjs_sym_comment, 1710, 12, mozjs_anon_sym_STAR,
      mozjs_anon_sym_in, mozjs_anon_sym_LT, mozjs_anon_sym_GT, mozjs_anon_sym_GT_GT,
      mozjs_anon_sym_AMP, mozjs_anon_sym_PIPE, mozjs_anon_sym_PLUS, mozjs_anon_sym_DASH,
      mozjs_anon_sym_SLASH, mozjs_anon_sym_EQ_EQ, mozjs_anon_sym_BANG_EQ, 1712, 26,
      mozjs_sym__automatic_semicolon, mozjs_sym__ternary_qmark, mozjs_anon_sym_COMMA,
      mozjs_anon_sym_RBRACE, mozjs_anon_sym_of, mozjs_anon_sym_LPAREN, mozjs_anon_sym_SEMI,
      mozjs_anon_sym_LBRACK, mozjs_anon_sym_DOT, mozjs_sym_optional_chain,
      mozjs_anon_sym_AMP_AMP, mozjs_anon_sym_PIPE_PIPE, mozjs_anon_sym_GT_GT_GT,
      mozjs_anon_sym_LT_LT, mozjs_anon_sym_CARET, mozjs_anon_sym_PERCENT,
      mozjs_anon_sym_STAR_STAR, mozjs_anon_sym_LT_EQ, mozjs_anon_sym_EQ_EQ_EQ,
      mozjs_anon_sym_BANG_EQ_EQ, mozjs_anon_sym_GT_EQ, mozjs_anon_sym_QMARK_QMARK,
      mozjs_anon_sym_instanceof, mozjs_anon_sym_PLUS_PLUS, mozjs_anon_sym_DASH_DASH,
      mozjs_anon_sym_BQUOTE]"

definition mozjs_small_run_23078 :: "nat list" where
  "mozjs_small_run_23078 =
    [3, 5, 2, mozjs_sym_html_comment, mozjs_sym_comment, 1684, 12, mozjs_anon_sym_STAR,
      mozjs_anon_sym_in, mozjs_anon_sym_LT, mozjs_anon_sym_GT, mozjs_anon_sym_GT_GT,
      mozjs_anon_sym_AMP, mozjs_anon_sym_PIPE, mozjs_anon_sym_PLUS, mozjs_anon_sym_DASH,
      mozjs_anon_sym_SLASH, mozjs_anon_sym_EQ_EQ, mozjs_anon_sym_BANG_EQ, 1686, 26,
      mozjs_sym__automatic_semicolon, mozjs_sym__ternary_qmark, mozjs_anon_sym_COMMA,
      mozjs_anon_sym_RBRACE, mozjs_anon_sym_of, mozjs_anon_sym_LPAREN, mozjs_anon_sym_SEMI,
      mozjs_anon_sym_LBRACK, mozjs_anon_sym_DOT, mozjs_sym_optional_chain,
      mozjs_anon_sym_AMP_AMP, mozjs_anon_sym_PIPE_PIPE, mozjs_anon_sym_GT_GT_GT,
      mozjs_anon_sym_LT_LT, mozjs_anon_sym_CARET, mozjs_anon_sym_PERCENT,
      mozjs_anon_sym_STAR_STAR, mozjs_anon_sym_LT_EQ, mozjs_anon_sym_EQ_EQ_EQ,
      mozjs_anon_sym_BANG_EQ_EQ, mozjs_anon_sym_GT_EQ, mozjs_anon_sym_QMARK_QMARK,
      mozjs_anon_sym_instanceof, mozjs_anon_sym_PLUS_PLUS, mozjs_anon_sym_DASH_DASH,
      mozjs_anon_sym_BQUOTE]"

definition mozjs_small_run_23125 :: "nat list" where
  "mozjs_small_run_23125 =
    [3, 5, 2, mozjs_sym_html_comment, mozjs_sym_comment, 1661, 12, mozjs_anon_sym_STAR,
      mozjs_anon_sym_in, mozjs_anon_sym_LT, mozjs_anon_sym_GT, mozjs_anon_sym_GT_GT,
      mozjs_anon_sym_AMP, mozjs_anon_sym_PIPE, mozjs_anon_sym_PLUS, mozjs_anon_sym_DASH,
      mozjs_anon_sym_SLASH, mozjs_anon_sym_EQ_EQ, mozjs_anon_sym_BANG_EQ, 1663, 26,
      mozjs_sym__automatic_semicolon, mozjs_sym__ternary_qmark, mozjs_anon_sym_COMMA,
      mozjs_anon_sym_RBRACE, mozjs_anon_sym_of, mozjs_anon_sym_LPAREN, mozjs_anon_sym_SEMI,
      mozjs_anon_sym_LBRACK, mozjs_anon_sym_DOT, mozjs_sym_optional_chain,
      mozjs_anon_sym_AMP_AMP, mozjs_anon_sym_PIPE_PIPE, mozjs_anon_sym_GT_GT_GT,
      mozjs_anon_sym_LT_LT, mozjs_anon_sym_CARET, mozjs_anon_sym_PERCENT,
      mozjs_anon_sym_STAR_STAR, mozjs_anon_sym_LT_EQ, mozjs_anon_sym_EQ_EQ_EQ,
      mozjs_anon_sym_BANG_EQ_EQ, mozjs_anon_sym_GT_EQ, mozjs_anon_sym_QMARK_QMARK,
      mozjs_anon_sym_instanceof, mozjs_anon_sym_PLUS_PLUS, mozjs_anon_sym_DASH_DASH,
      mozjs_anon_sym_BQUOTE]"

definition mozjs_small_run_23172 :: "nat list" where
  "mozjs_small_run_23172 =
    [25, 1827, 1, mozjs_anon_sym_LPAREN, 1829, 1, mozjs_anon_sym_LBRACK, 1831, 1,
      mozjs_anon_sym_DOT, 1845, 1, mozjs_sym_optional_chain, 1891, 1, mozjs_anon_sym_AMP_AMP,
      1893, 1, mozjs_anon_sym_PIPE_PIPE, 1895, 1, mozjs_anon_sym_GT_GT, 1899, 1,
      mozjs_anon_sym_AMP, 1901, 1, mozjs_anon_sym_CARET, 1903, 1, mozjs_anon_sym_PIPE, 1907, 1,
      mozjs_anon_sym_PERCENT, 1909, 1, mozjs_anon_sym_STAR_STAR, 1917, 1,
      mozjs_anon_sym_QMARK_QMARK, 1919, 1, mozjs_sym__ternary_qmark, 804, 1, mozjs_sym_arguments,
      5, 2, mozjs_sym_html_comment, mozjs_sym_comment, 1849, 2, mozjs_anon_sym_PLUS_PLUS,
      mozjs_anon_sym_DASH_DASH, 1887, 2, mozjs_anon_sym_STAR, mozjs_anon_sym_SLASH, 1897, 2,
      mozjs_anon_sym_GT_GT_GT, mozjs_anon_sym_LT_LT, 1905, 2, mozjs_anon_sym_PLUS,
      mozjs_anon_sym_DASH, 1913, 2, mozjs_anon_sym_EQ_EQ, mozjs_anon_sym_BANG_EQ, 1915, 2,
      mozjs_anon_sym_EQ_EQ_EQ, mozjs_anon_sym_BANG_EQ_EQ, 1889, 3, mozjs_anon_sym_in,
      mozjs_anon_sym_LT, mozjs_anon_sym_GT, 1911, 3, mozjs_anon_sym_LT_EQ, mozjs_anon_sym_GT_EQ,
      mozjs_anon_sym_instanceof, 1843, 5, mozjs_sym__automatic_semicolon, mozjs_anon_sym_COMMA,
      mozjs_anon_sym_RBRACE, mozjs_anon_sym_SEMI, mozjs_anon_sym_BQUOTE]"

definition mozjs_small_run_23263 :: "nat list" where
  "mozjs_small_run_23263 =
    [3, 5, 2, mozjs_sym_html_comment, mozjs_sym_comment, 763, 12, mozjs_anon_sym_STAR,
      mozjs_anon_sym_in, mozjs_anon_sym_LT, mozjs_anon_sym_GT, mozjs_anon_sym_GT_GT,
      mozjs_anon_sym_AMP, mozjs_anon_sym_PIPE, mozjs_anon_sym_PLUS, mozjs_anon_sym_DASH,
      mozjs_anon_sym_SLASH, mozjs_anon_sym_EQ_EQ, mozjs_anon_sym_BANG_EQ, 765, 26,
      mozjs_sym__automatic_semicolon, mozjs_sym__ternary_qmark, mozjs_anon_sym_COMMA,
      mozjs_anon_sym_RBRACE, mozjs_anon_sym_of, mozjs_anon_sym_LPAREN, mozjs_anon_sym_SEMI,
      mozjs_anon_sym_LBRACK, mozjs_anon_sym_DOT, mozjs_sym_optional_chain,
      mozjs_anon_sym_AMP_AMP, mozjs_anon_sym_PIPE_PIPE, mozjs_anon_sym_GT_GT_GT,
      mozjs_anon_sym_LT_LT, mozjs_anon_sym_CARET, mozjs_anon_sym_PERCENT,
      mozjs_anon_sym_STAR_STAR, mozjs_anon_sym_LT_EQ, mozjs_anon_sym_EQ_EQ_EQ,
      mozjs_anon_sym_BANG_EQ_EQ, mozjs_anon_sym_GT_EQ, mozjs_anon_sym_QMARK_QMARK,
      mozjs_anon_sym_instanceof, mozjs_anon_sym_PLUS_PLUS, mozjs_anon_sym_DASH_DASH,
      mozjs_anon_sym_BQUOTE]"

definition mozjs_small_run_23310 :: "nat list" where
  "mozjs_small_run_23310 =
    [3, 5, 2, mozjs_sym_html_comment, mozjs_sym_comment, 1734, 12, mozjs_anon_sym_STAR,
      mozjs_anon_sym_in, mozjs_anon_sym_LT, mozjs_anon_sym_GT, mozjs_anon_sym_GT_GT,
      mozjs_anon_sym_AMP, mozjs_anon_sym_PIPE, mozjs_anon_sym_PLUS, mozjs_anon_sym_DASH,
      mozjs_anon_sym_SLASH, mozjs_anon_sym_EQ_EQ, mozjs_anon_sym_BANG_EQ, 1736, 26,
      mozjs_sym__automatic_semicolon, mozjs_sym__ternary_qmark, mozjs_anon_sym_COMMA,
      mozjs_anon_sym_RBRACE, mozjs_anon_sym_of, mozjs_anon_sym_LPAREN, mozjs_anon_sym_SEMI,
      mozjs_anon_sym_LBRACK, mozjs_anon_sym_DOT, mozjs_sym_optional_chain,
      mozjs_anon_sym_AMP_AMP, mozjs_anon_sym_PIPE_PIPE, mozjs_anon_sym_GT_GT_GT,
      mozjs_anon_sym_LT_LT, mozjs_anon_sym_CARET, mozjs_anon_sym_PERCENT,
      mozjs_anon_sym_STAR_STAR, mozjs_anon_sym_LT_EQ, mozjs_anon_sym_EQ_EQ_EQ,
      mozjs_anon_sym_BANG_EQ_EQ, mozjs_anon_sym_GT_EQ, mozjs_anon_sym_QMARK_QMARK,
      mozjs_anon_sym_instanceof, mozjs_anon_sym_PLUS_PLUS, mozjs_anon_sym_DASH_DASH,
      mozjs_anon_sym_BQUOTE]"

definition mozjs_small_run_23357 :: "nat list" where
  "mozjs_small_run_23357 =
    [3, 5, 2, mozjs_sym_html_comment, mozjs_sym_comment, 773, 12, mozjs_anon_sym_STAR,
      mozjs_anon_sym_in, mozjs_anon_sym_LT, mozjs_anon_sym_GT, mozjs_anon_sym_GT_GT,
      mozjs_anon_sym_AMP, mozjs_anon_sym_PIPE, mozjs_anon_sym_PLUS, mozjs_anon_sym_DASH,
      mozjs_anon_sym_SLASH, mozjs_anon_sym_EQ_EQ, mozjs_anon_sym_BANG_EQ, 775, 26,
      mozjs_sym__automatic_semicolon, mozjs_sym__ternary_qmark, mozjs_anon_sym_COMMA,
      mozjs_anon_sym_RBRACE, mozjs_anon_sym_of, mozjs_anon_sym_LPAREN, mozjs_anon_sym_SEMI,
      mozjs_anon_sym_LBRACK, mozjs_anon_sym_DOT, mozjs_sym_optional_chain,
      mozjs_anon_sym_AMP_AMP, mozjs_anon_sym_PIPE_PIPE, mozjs_anon_sym_GT_GT_GT,
      mozjs_anon_sym_LT_LT, mozjs_anon_sym_CARET, mozjs_anon_sym_PERCENT,
      mozjs_anon_sym_STAR_STAR, mozjs_anon_sym_LT_EQ, mozjs_anon_sym_EQ_EQ_EQ,
      mozjs_anon_sym_BANG_EQ_EQ, mozjs_anon_sym_GT_EQ, mozjs_anon_sym_QMARK_QMARK,
      mozjs_anon_sym_instanceof, mozjs_anon_sym_PLUS_PLUS, mozjs_anon_sym_DASH_DASH,
      mozjs_anon_sym_BQUOTE]"

definition mozjs_small_run_23404 :: "nat list" where
  "mozjs_small_run_23404 =
    [3, 5, 2, mozjs_sym_html_comment, mozjs_sym_comment, 1657, 12, mozjs_anon_sym_STAR,
      mozjs_anon_sym_in, mozjs_anon_sym_LT, mozjs_anon_sym_GT, mozjs_anon_sym_GT_GT,
      mozjs_anon_sym_AMP, mozjs_anon_sym_PIPE, mozjs_anon_sym_PLUS, mozjs_anon_sym_DASH,
      mozjs_anon_sym_SLASH, mozjs_anon_sym_EQ_EQ, mozjs_anon_sym_BANG_EQ, 1659, 26,
      mozjs_sym__automatic_semicolon, mozjs_sym__ternary_qmark, mozjs_anon_sym_COMMA,
      mozjs_anon_sym_RBRACE, mozjs_anon_sym_of, mozjs_anon_sym_LPAREN, mozjs_anon_sym_SEMI,
      mozjs_anon_sym_LBRACK, mozjs_anon_sym_DOT, mozjs_sym_optional_chain,
      mozjs_anon_sym_AMP_AMP, mozjs_anon_sym_PIPE_PIPE, mozjs_anon_sym_GT_GT_GT,
      mozjs_anon_sym_LT_LT, mozjs_anon_sym_CARET, mozjs_anon_sym_PERCENT,
      mozjs_anon_sym_STAR_STAR, mozjs_anon_sym_LT_EQ, mozjs_anon_sym_EQ_EQ_EQ,
      mozjs_anon_sym_BANG_EQ_EQ, mozjs_anon_sym_GT_EQ, mozjs_anon_sym_QMARK_QMARK,
      mozjs_anon_sym_instanceof, mozjs_anon_sym_PLUS_PLUS, mozjs_anon_sym_DASH_DASH,
      mozjs_anon_sym_BQUOTE]"

definition mozjs_small_run_23451 :: "nat list" where
  "mozjs_small_run_23451 =
    [5, 1535, 1, mozjs_anon_sym_EQ, 5, 2, mozjs_sym_html_comment, mozjs_sym_comment, 1533, 4,
      mozjs_anon_sym_COMMA, mozjs_anon_sym_RBRACE, mozjs_anon_sym_RPAREN, mozjs_anon_sym_RBRACK,
      1435, 12, mozjs_anon_sym_STAR, mozjs_anon_sym_in, mozjs_anon_sym_LT, mozjs_anon_sym_GT,
      mozjs_anon_sym_GT_GT, mozjs_anon_sym_AMP, mozjs_anon_sym_PIPE, mozjs_anon_sym_PLUS,
      mozjs_anon_sym_DASH, mozjs_anon_sym_SLASH, mozjs_anon_sym_EQ_EQ, mozjs_anon_sym_BANG_EQ,
      1437, 21, mozjs_sym__ternary_qmark, mozjs_anon_sym_LPAREN, mozjs_anon_sym_LBRACK,
      mozjs_anon_sym_DOT, mozjs_sym_optional_chain, mozjs_anon_sym_AMP_AMP,
      mozjs_anon_sym_PIPE_PIPE, mozjs_anon_sym_GT_GT_GT, mozjs_anon_sym_LT_LT,
      mozjs_anon_sym_CARET, mozjs_anon_sym_PERCENT, mozjs_anon_sym_STAR_STAR,
      mozjs_anon_sym_LT_EQ, mozjs_anon_sym_EQ_EQ_EQ, mozjs_anon_sym_BANG_EQ_EQ,
      mozjs_anon_sym_GT_EQ, mozjs_anon_sym_QMARK_QMARK, mozjs_anon_sym_instanceof,
      mozjs_anon_sym_PLUS_PLUS, mozjs_anon_sym_DASH_DASH, mozjs_anon_sym_BQUOTE]"

definition mozjs_small_run_23502 :: "nat list" where
  "mozjs_small_run_23502 =
    [3, 5, 2, mozjs_sym_html_comment, mozjs_sym_comment, 783, 12, mozjs_anon_sym_STAR,
      mozjs_anon_sym_in, mozjs_anon_sym_LT, mozjs_anon_sym_GT, mozjs_anon_sym_GT_GT,
      mozjs_anon_sym_AMP, mozjs_anon_sym_PIPE, mozjs_anon_sym_PLUS, mozjs_anon_sym_DASH,
      mozjs_anon_sym_SLASH, mozjs_anon_sym_EQ_EQ, mozjs_anon_sym_BANG_EQ, 785, 26,
      mozjs_sym__automatic_semicolon, mozjs_sym__ternary_qmark, mozjs_anon_sym_COMMA,
      mozjs_anon_sym_RBRACE, mozjs_anon_sym_of, mozjs_anon_sym_LPAREN, mozjs_anon_sym_SEMI,
      mozjs_anon_sym_LBRACK, mozjs_anon_sym_DOT, mozjs_sym_optional_chain,
      mozjs_anon_sym_AMP_AMP, mozjs_anon_sym_PIPE_PIPE, mozjs_anon_sym_GT_GT_GT,
      mozjs_anon_sym_LT_LT, mozjs_anon_sym_CARET, mozjs_anon_sym_PERCENT,
      mozjs_anon_sym_STAR_STAR, mozjs_anon_sym_LT_EQ, mozjs_anon_sym_EQ_EQ_EQ,
      mozjs_anon_sym_BANG_EQ_EQ, mozjs_anon_sym_GT_EQ, mozjs_anon_sym_QMARK_QMARK,
      mozjs_anon_sym_instanceof, mozjs_anon_sym_PLUS_PLUS, mozjs_anon_sym_DASH_DASH,
      mozjs_anon_sym_BQUOTE]"

definition mozjs_small_run_23549 :: "nat list" where
  "mozjs_small_run_23549 =
    [3, 5, 2, mozjs_sym_html_comment, mozjs_sym_comment, 1586, 12, mozjs_anon_sym_STAR,
      mozjs_anon_sym_in, mozjs_anon_sym_LT, mozjs_anon_sym_GT, mozjs_anon_sym_GT_GT,
      mozjs_anon_sym_AMP, mozjs_anon_sym_PIPE, mozjs_anon_sym_PLUS, mozjs_anon_sym_DASH,
      mozjs_anon_sym_SLASH, mozjs_anon_sym_EQ_EQ, mozjs_anon_sym_BANG_EQ, 1588, 26,
      mozjs_sym__automatic_semicolon, mozjs_sym__ternary_qmark, mozjs_anon_sym_COMMA,
      mozjs_anon_sym_RBRACE, mozjs_anon_sym_of, mozjs_anon_sym_LPAREN, mozjs_anon_sym_SEMI,
      mozjs_anon_sym_LBRACK, mozjs_anon_sym_DOT, mozjs_sym_optional_chain,
      mozjs_anon_sym_AMP_AMP, mozjs_anon_sym_PIPE_PIPE, mozjs_anon_sym_GT_GT_GT,
      mozjs_anon_sym_LT_LT, mozjs_anon_sym_CARET, mozjs_anon_sym_PERCENT,
      mozjs_anon_sym_STAR_STAR, mozjs_anon_sym_LT_EQ, mozjs_anon_sym_EQ_EQ_EQ,
      mozjs_anon_sym_BANG_EQ_EQ, mozjs_anon_sym_GT_EQ, mozjs_anon_sym_QMARK_QMARK,
      mozjs_anon_sym_instanceof, mozjs_anon_sym_PLUS_PLUS, mozjs_anon_sym_DASH_DASH,
      mozjs_anon_sym_BQUOTE]"

definition mozjs_small_run_23596 :: "nat list" where
  "mozjs_small_run_23596 =
    [3, 5, 2, mozjs_sym_html_comment, mozjs_sym_comment, 753, 12, mozjs_anon_sym_STAR,
      mozjs_anon_sym_in, mozjs_anon_sym_LT, mozjs_anon_sym_GT, mozjs_anon_sym_GT_GT,
      mozjs_anon_sym_AMP, mozjs_anon_sym_PIPE, mozjs_anon_sym_PLUS, mozjs_anon_sym_DASH,
      mozjs_anon_sym_SLASH, mozjs_anon_sym_EQ_EQ, mozjs_anon_sym_BANG_EQ, 755, 26,
      mozjs_sym__automatic_semicolon, mozjs_sym__ternary_qmark, mozjs_anon_sym_COMMA,
      mozjs_anon_sym_RBRACE, mozjs_anon_sym_of, mozjs_anon_sym_LPAREN, mozjs_anon_sym_SEMI,
      mozjs_anon_sym_LBRACK, mozjs_anon_sym_DOT, mozjs_sym_optional_chain,
      mozjs_anon_sym_AMP_AMP, mozjs_anon_sym_PIPE_PIPE, mozjs_anon_sym_GT_GT_GT,
      mozjs_anon_sym_LT_LT, mozjs_anon_sym_CARET, mozjs_anon_sym_PERCENT,
      mozjs_anon_sym_STAR_STAR, mozjs_anon_sym_LT_EQ, mozjs_anon_sym_EQ_EQ_EQ,
      mozjs_anon_sym_BANG_EQ_EQ, mozjs_anon_sym_GT_EQ, mozjs_anon_sym_QMARK_QMARK,
      mozjs_anon_sym_instanceof, mozjs_anon_sym_PLUS_PLUS, mozjs_anon_sym_DASH_DASH,
      mozjs_anon_sym_BQUOTE]"

definition mozjs_small_run_23643 :: "nat list" where
  "mozjs_small_run_23643 =
    [5, 737, 1, mozjs_sym__automatic_semicolon, 5, 2, mozjs_sym_html_comment, mozjs_sym_comment,
      729, 2, mozjs_anon_sym_else, mozjs_anon_sym_while, 733, 12, mozjs_anon_sym_STAR,
      mozjs_anon_sym_in, mozjs_anon_sym_LT, mozjs_anon_sym_GT, mozjs_anon_sym_GT_GT,
      mozjs_anon_sym_AMP, mozjs_anon_sym_PIPE, mozjs_anon_sym_PLUS, mozjs_anon_sym_DASH,
      mozjs_anon_sym_SLASH, mozjs_anon_sym_EQ_EQ, mozjs_anon_sym_BANG_EQ, 735, 23,
      mozjs_sym__ternary_qmark, mozjs_anon_sym_COMMA, mozjs_anon_sym_LPAREN, mozjs_anon_sym_SEMI,
      mozjs_anon_sym_LBRACK, mozjs_anon_sym_DOT, mozjs_sym_optional_chain,
      mozjs_anon_sym_AMP_AMP, mozjs_anon_sym_PIPE_PIPE, mozjs_anon_sym_GT_GT_GT,
      mozjs_anon_sym_LT_LT, mozjs_anon_sym_CARET, mozjs_anon_sym_PERCENT,
      mozjs_anon_sym_STAR_STAR, mozjs_anon_sym_LT_EQ, mozjs_anon_sym_EQ_EQ_EQ,
      mozjs_anon_sym_BANG_EQ_EQ, mozjs_anon_sym_GT_EQ, mozjs_anon_sym_QMARK_QMARK,
      mozjs_anon_sym_instanceof, mozjs_anon_sym_PLUS_PLUS, mozjs_anon_sym_DASH_DASH,
      mozjs_anon_sym_BQUOTE]"

definition mozjs_small_run_23694 :: "nat list" where
  "mozjs_small_run_23694 =
    [5, 767, 1, mozjs_sym__automatic_semicolon, 5, 2, mozjs_sym_html_comment, mozjs_sym_comment,
      759, 2, mozjs_anon_sym_else, mozjs_anon_sym_while, 763, 12, mozjs_anon_sym_STAR,
      mozjs_anon_sym_in, mozjs_anon_sym_LT, mozjs_anon_sym_GT, mozjs_anon_sym_GT_GT,
      mozjs_anon_sym_AMP, mozjs_anon_sym_PIPE, mozjs_anon_sym_PLUS, mozjs_anon_sym_DASH,
      mozjs_anon_sym_SLASH, mozjs_anon_sym_EQ_EQ, mozjs_anon_sym_BANG_EQ, 765, 23,
      mozjs_sym__ternary_qmark, mozjs_anon_sym_COMMA, mozjs_anon_sym_LPAREN, mozjs_anon_sym_SEMI,
      mozjs_anon_sym_LBRACK, mozjs_anon_sym_DOT, mozjs_sym_optional_chain,
      mozjs_anon_sym_AMP_AMP, mozjs_anon_sym_PIPE_PIPE, mozjs_anon_sym_GT_GT_GT,
      mozjs_anon_sym_LT_LT, mozjs_anon_sym_CARET, mozjs_anon_sym_PERCENT,
      mozjs_anon_sym_STAR_STAR, mozjs_anon_sym_LT_EQ, mozjs_anon_sym_EQ_EQ_EQ,
      mozjs_anon_sym_BANG_EQ_EQ, mozjs_anon_sym_GT_EQ, mozjs_anon_sym_QMARK_QMARK,
      mozjs_anon_sym_instanceof, mozjs_anon_sym_PLUS_PLUS, mozjs_anon_sym_DASH_DASH,
      mozjs_anon_sym_BQUOTE]"

definition mozjs_small_run_23745 :: "nat list" where
  "mozjs_small_run_23745 =
    [3, 5, 2, mozjs_sym_html_comment, mozjs_sym_comment, 1718, 12, mozjs_anon_sym_STAR,
      mozjs_anon_sym_in, mozjs_anon_sym_LT, mozjs_anon_sym_GT, mozjs_anon_sym_GT_GT,
      mozjs_anon_sym_AMP, mozjs_anon_sym_PIPE, mozjs_anon_sym_PLUS, mozjs_anon_sym_DASH,
      mozjs_anon_sym_SLASH, mozjs_anon_sym_EQ_EQ, mozjs_anon_sym_BANG_EQ, 1720, 26,
      mozjs_sym__automatic_semicolon, mozjs_sym__ternary_qmark, mozjs_anon_sym_COMMA,
      mozjs_anon_sym_RBRACE, mozjs_anon_sym_of, mozjs_anon_sym_LPAREN, mozjs_anon_sym_SEMI,
      mozjs_anon_sym_LBRACK, mozjs_anon_sym_DOT, mozjs_sym_optional_chain,
      mozjs_anon_sym_AMP_AMP, mozjs_anon_sym_PIPE_PIPE, mozjs_anon_sym_GT_GT_GT,
      mozjs_anon_sym_LT_LT, mozjs_anon_sym_CARET, mozjs_anon_sym_PERCENT,
      mozjs_anon_sym_STAR_STAR, mozjs_anon_sym_LT_EQ, mozjs_anon_sym_EQ_EQ_EQ,
      mozjs_anon_sym_BANG_EQ_EQ, mozjs_anon_sym_GT_EQ, mozjs_anon_sym_QMARK_QMARK,
      mozjs_anon_sym_instanceof, mozjs_anon_sym_PLUS_PLUS, mozjs_anon_sym_DASH_DASH,
      mozjs_anon_sym_BQUOTE]"

definition mozjs_small_run_23792 :: "nat list" where
  "mozjs_small_run_23792 =
    [3, 5, 2, mozjs_sym_html_comment, mozjs_sym_comment, 1684, 12, mozjs_anon_sym_STAR,
      mozjs_anon_sym_in, mozjs_anon_sym_LT, mozjs_anon_sym_GT, mozjs_anon_sym_GT_GT,
      mozjs_anon_sym_AMP, mozjs_anon_sym_PIPE, mozjs_anon_sym_PLUS, mozjs_anon_sym_DASH,
      mozjs_anon_sym_SLASH, mozjs_anon_sym_EQ_EQ, mozjs_anon_sym_BANG_EQ, 1686, 26,
      mozjs_sym__automatic_semicolon, mozjs_sym__ternary_qmark, mozjs_anon_sym_COMMA,
      mozjs_anon_sym_RBRACE, mozjs_anon_sym_of, mozjs_anon_sym_LPAREN, mozjs_anon_sym_SEMI,
      mozjs_anon_sym_LBRACK, mozjs_anon_sym_DOT, mozjs_sym_optional_chain,
      mozjs_anon_sym_AMP_AMP, mozjs_anon_sym_PIPE_PIPE, mozjs_anon_sym_GT_GT_GT,
      mozjs_anon_sym_LT_LT, mozjs_anon_sym_CARET, mozjs_anon_sym_PERCENT,
      mozjs_anon_sym_STAR_STAR, mozjs_anon_sym_LT_EQ, mozjs_anon_sym_EQ_EQ_EQ,
      mozjs_anon_sym_BANG_EQ_EQ, mozjs_anon_sym_GT_EQ, mozjs_anon_sym_QMARK_QMARK,
      mozjs_anon_sym_instanceof, mozjs_anon_sym_PLUS_PLUS, mozjs_anon_sym_DASH_DASH,
      mozjs_anon_sym_BQUOTE]"

definition mozjs_small_run_23839 :: "nat list" where
  "mozjs_small_run_23839 =
    [25, 1827, 1, mozjs_anon_sym_LPAREN, 1829, 1, mozjs_anon_sym_LBRACK, 1831, 1,
      mozjs_anon_sym_DOT, 1845, 1, mozjs_sym_optional_chain, 1891, 1, mozjs_anon_sym_AMP_AMP,
      1893, 1, mozjs_anon_sym_PIPE_PIPE, 1895, 1, mozjs_anon_sym_GT_GT, 1899, 1,
      mozjs_anon_sym_AMP, 1901, 1, mozjs_anon_sym_CARET, 1903, 1, mozjs_anon_sym_PIPE, 1907, 1,
      mozjs_anon_sym_PERCENT, 1909, 1, mozjs_anon_sym_STAR_STAR, 1917, 1,
      mozjs_anon_sym_QMARK_QMARK, 1919, 1, mozjs_sym__ternary_qmark, 804, 1, mozjs_sym_arguments,
      5, 2, mozjs_sym_html_comment, mozjs_sym_comment, 1849, 2, mozjs_anon_sym_PLUS_PLUS,
      mozjs_anon_sym_DASH_DASH, 1887, 2, mozjs_anon_sym_STAR, mozjs_anon_sym_SLASH, 1897, 2,
      mozjs_anon_sym_GT_GT_GT, mozjs_anon_sym_LT_LT, 1905, 2, mozjs_anon_sym_PLUS,
      mozjs_anon_sym_DASH, 1913, 2, mozjs_anon_sym_EQ_EQ, mozjs_anon_sym_BANG_EQ, 1915, 2,
      mozjs_anon_sym_EQ_EQ_EQ, mozjs_anon_sym_BANG_EQ_EQ, 1889, 3, mozjs_anon_sym_in,
      mozjs_anon_sym_LT, mozjs_anon_sym_GT, 1911, 3, mozjs_anon_sym_LT_EQ, mozjs_anon_sym_GT_EQ,
      mozjs_anon_sym_instanceof, 1720, 5, mozjs_sym__automatic_semicolon, mozjs_anon_sym_COMMA,
      mozjs_anon_sym_RBRACE, mozjs_anon_sym_SEMI, mozjs_anon_sym_BQUOTE]"

definition mozjs_small_run_23930 :: "nat list" where
  "mozjs_small_run_23930 =
    [25, 1827, 1, mozjs_anon_sym_LPAREN, 1829, 1, mozjs_anon_sym_LBRACK, 1831, 1,
      mozjs_anon_sym_DOT, 1845, 1, mozjs_sym_optional_chain, 1891, 1, mozjs_anon_sym_AMP_AMP,
      1893, 1, mozjs_anon_sym_PIPE_PIPE, 1895, 1, mozjs_anon_sym_GT_GT, 1899, 1,
      mozjs_anon_sym_AMP, 1901, 1, mozjs_anon_sym_CARET, 1903, 1, mozjs_anon_sym_PIPE, 1907, 1,
      mozjs_anon_sym_PERCENT, 1909, 1, mozjs_anon_sym_STAR_STAR, 1917, 1,
      mozjs_anon_sym_QMARK_QMARK, 1919, 1, mozjs_sym__ternary_qmark, 804, 1, mozjs_sym_arguments,
      5, 2, mozjs_sym_html_comment, mozjs_sym_comment, 1849, 2, mozjs_anon_sym_PLUS_PLUS,
      mozjs_anon_sym_DASH_DASH, 1887, 2, mozjs_anon_sym_STAR, mozjs_anon_sym_SLASH, 1897, 2,
      mozjs_anon_sym_GT_GT_GT, mozjs_anon_sym_LT_LT, 1905, 2, mozjs_anon_sym_PLUS,
      mozjs_anon_sym_DASH, 1913, 2, mozjs_anon_sym_EQ_EQ, mozjs_anon_sym_BANG_EQ, 1915, 2,
      mozjs_anon_sym_EQ_EQ_EQ, mozjs_anon_sym_BANG_EQ_EQ, 1889, 3, mozjs_anon_sym_in,
      mozjs_anon_sym_LT, mozjs_anon_sym_GT, 1911, 3, mozjs_anon_sym_LT_EQ, mozjs_anon_sym_GT_EQ,
      mozjs_anon_sym_instanceof, 1807, 5, mozjs_sym__automatic_semicolon, mozjs_anon_sym_COMMA,
      mozjs_anon_sym_RBRACE, mozjs_anon_sym_SEMI, mozjs_anon_sym_BQUOTE]"

definition mozjs_small_run_24021 :: "nat list" where
  "mozjs_small_run_24021 =
    [5, 1549, 1, mozjs_anon_sym_EQ, 5, 2, mozjs_sym_html_comment, mozjs_sym_comment, 1546, 4,
      mozjs_anon_sym_COMMA, mozjs_anon_sym_RBRACE, mozjs_anon_sym_RPAREN, mozjs_anon_sym_RBRACK,
      1435, 12, mozjs_anon_sym_STAR, mozjs_anon_sym_in, mozjs_anon_sym_LT, mozjs_anon_sym_GT,
      mozjs_anon_sym_GT_GT, mozjs_anon_sym_AMP, mozjs_anon_sym_PIPE, mozjs_anon_sym_PLUS,
      mozjs_anon_sym_DASH, mozjs_anon_sym_SLASH, mozjs_anon_sym_EQ_EQ, mozjs_anon_sym_BANG_EQ,
      1437, 21, mozjs_sym__ternary_qmark, mozjs_anon_sym_LPAREN, mozjs_anon_sym_LBRACK,
      mozjs_anon_sym_DOT, mozjs_sym_optional_chain, mozjs_anon_sym_AMP_AMP,
      mozjs_anon_sym_PIPE_PIPE, mozjs_anon_sym_GT_GT_GT, mozjs_anon_sym_LT_LT,
      mozjs_anon_sym_CARET, mozjs_anon_sym_PERCENT, mozjs_anon_sym_STAR_STAR,
      mozjs_anon_sym_LT_EQ, mozjs_anon_sym_EQ_EQ_EQ, mozjs_anon_sym_BANG_EQ_EQ,
      mozjs_anon_sym_GT_EQ, mozjs_anon_sym_QMARK_QMARK, mozjs_anon_sym_instanceof,
      mozjs_anon_sym_PLUS_PLUS, mozjs_anon_sym_DASH_DASH, mozjs_anon_sym_BQUOTE]"

definition mozjs_small_run_24072 :: "nat list" where
  "mozjs_small_run_24072 =
    [25, 1827, 1, mozjs_anon_sym_LPAREN, 1829, 1, mozjs_anon_sym_LBRACK, 1831, 1,
      mozjs_anon_sym_DOT, 1845, 1, mozjs_sym_optional_chain, 1891, 1, mozjs_anon_sym_AMP_AMP,
      1893, 1, mozjs_anon_sym_PIPE_PIPE, 1895, 1, mozjs_anon_sym_GT_GT, 1899, 1,
      mozjs_anon_sym_AMP, 1901, 1, mozjs_anon_sym_CARET, 1903, 1, mozjs_anon_sym_PIPE, 1907, 1,
      mozjs_anon_sym_PERCENT, 1909, 1, mozjs_anon_sym_STAR_STAR, 1917, 1,
      mozjs_anon_sym_QMARK_QMARK, 1919, 1, mozjs_sym__ternary_qmark, 804, 1, mozjs_sym_arguments,
      5, 2, mozjs_sym_html_comment, mozjs_sym_comment, 1849, 2, mozjs_anon_sym_PLUS_PLUS,
      mozjs_anon_sym_DASH_DASH, 1887, 2, mozjs_anon_sym_STAR, mozjs_anon_sym_SLASH, 1897, 2,
      mozjs_anon_sym_GT_GT_GT, mozjs_anon_sym_LT_LT, 1905, 2, mozjs_anon_sym_PLUS,
      mozjs_anon_sym_DASH, 1913, 2, mozjs_anon_sym_EQ_EQ, mozjs_anon_sym_BANG_EQ, 1915, 2,
      mozjs_anon_sym_EQ_EQ_EQ, mozjs_anon_sym_BANG_EQ_EQ, 1889, 3, mozjs_anon_sym_in,
      mozjs_anon_sym_LT, mozjs_anon_sym_GT, 1911, 3, mozjs_anon_sym_LT_EQ, mozjs_anon_sym_GT_EQ,
      mozjs_anon_sym_instanceof, 1736, 5, mozjs_sym__automatic_semicolon, mozjs_anon_sym_COMMA,
      mozjs_anon_sym_RBRACE, mozjs_anon_sym_SEMI, mozjs_anon_sym_BQUOTE]"

definition mozjs_small_run_24163 :: "nat list" where
  "mozjs_small_run_24163 =
    [5, 747, 1, mozjs_sym__automatic_semicolon, 5, 2, mozjs_sym_html_comment, mozjs_sym_comment,
      739, 2, mozjs_anon_sym_else, mozjs_anon_sym_while, 743, 12, mozjs_anon_sym_STAR,
      mozjs_anon_sym_in, mozjs_anon_sym_LT, mozjs_anon_sym_GT, mozjs_anon_sym_GT_GT,
      mozjs_anon_sym_AMP, mozjs_anon_sym_PIPE, mozjs_anon_sym_PLUS, mozjs_anon_sym_DASH,
      mozjs_anon_sym_SLASH, mozjs_anon_sym_EQ_EQ, mozjs_anon_sym_BANG_EQ, 745, 23,
      mozjs_sym__ternary_qmark, mozjs_anon_sym_COMMA, mozjs_anon_sym_LPAREN, mozjs_anon_sym_SEMI,
      mozjs_anon_sym_LBRACK, mozjs_anon_sym_DOT, mozjs_sym_optional_chain,
      mozjs_anon_sym_AMP_AMP, mozjs_anon_sym_PIPE_PIPE, mozjs_anon_sym_GT_GT_GT,
      mozjs_anon_sym_LT_LT, mozjs_anon_sym_CARET, mozjs_anon_sym_PERCENT,
      mozjs_anon_sym_STAR_STAR, mozjs_anon_sym_LT_EQ, mozjs_anon_sym_EQ_EQ_EQ,
      mozjs_anon_sym_BANG_EQ_EQ, mozjs_anon_sym_GT_EQ, mozjs_anon_sym_QMARK_QMARK,
      mozjs_anon_sym_instanceof, mozjs_anon_sym_PLUS_PLUS, mozjs_anon_sym_DASH_DASH,
      mozjs_anon_sym_BQUOTE]"

definition mozjs_small_run_24214 :: "nat list" where
  "mozjs_small_run_24214 =
    [3, 5, 2, mozjs_sym_html_comment, mozjs_sym_comment, 743, 12, mozjs_anon_sym_STAR,
      mozjs_anon_sym_in, mozjs_anon_sym_LT, mozjs_anon_sym_GT, mozjs_anon_sym_GT_GT,
      mozjs_anon_sym_AMP, mozjs_anon_sym_PIPE, mozjs_anon_sym_PLUS, mozjs_anon_sym_DASH,
      mozjs_anon_sym_SLASH, mozjs_anon_sym_EQ_EQ, mozjs_anon_sym_BANG_EQ, 745, 26,
      mozjs_sym__automatic_semicolon, mozjs_sym__ternary_qmark, mozjs_anon_sym_COMMA,
      mozjs_anon_sym_RBRACE, mozjs_anon_sym_of, mozjs_anon_sym_LPAREN, mozjs_anon_sym_SEMI,
      mozjs_anon_sym_LBRACK, mozjs_anon_sym_DOT, mozjs_sym_optional_chain,
      mozjs_anon_sym_AMP_AMP, mozjs_anon_sym_PIPE_PIPE, mozjs_anon_sym_GT_GT_GT,
      mozjs_anon_sym_LT_LT, mozjs_anon_sym_CARET, mozjs_anon_sym_PERCENT,
      mozjs_anon_sym_STAR_STAR, mozjs_anon_sym_LT_EQ, mozjs_anon_sym_EQ_EQ_EQ,
      mozjs_anon_sym_BANG_EQ_EQ, mozjs_anon_sym_GT_EQ, mozjs_anon_sym_QMARK_QMARK,
      mozjs_anon_sym_instanceof, mozjs_anon_sym_PLUS_PLUS, mozjs_anon_sym_DASH_DASH,
      mozjs_anon_sym_BQUOTE]"

definition mozjs_small_run_24261 :: "nat list" where
  "mozjs_small_run_24261 =
    [25, 1827, 1, mozjs_anon_sym_LPAREN, 1829, 1, mozjs_anon_sym_LBRACK, 1831, 1,
      mozjs_anon_sym_DOT, 1845, 1, mozjs_sym_optional_chain, 1891, 1, mozjs_anon_sym_AMP_AMP,
      1893, 1, mozjs_anon_sym_PIPE_PIPE, 1895, 1, mozjs_anon_sym_GT_GT, 1899, 1,
      mozjs_anon_sym_AMP, 1901, 1, mozjs_anon_sym_CARET, 1903, 1, mozjs_anon_sym_PIPE, 1907, 1,
      mozjs_anon_sym_PERCENT, 1909, 1, mozjs_anon_sym_STAR_STAR, 1917, 1,
      mozjs_anon_sym_QMARK_QMARK, 1919, 1, mozjs_sym__ternary_qmark, 804, 1, mozjs_sym_arguments,
      5, 2, mozjs_sym_html_comment, mozjs_sym_comment, 1849, 2, mozjs_anon_sym_PLUS_PLUS,
      mozjs_anon_sym_DASH_DASH, 1887, 2, mozjs_anon_sym_STAR, mozjs_anon_sym_SLASH, 1897, 2,
      mozjs_anon_sym_GT_GT_GT, mozjs_anon_sym_LT_LT, 1905, 2, mozjs_anon_sym_PLUS,
      mozjs_anon_sym_DASH, 1913, 2, mozjs_anon_sym_EQ_EQ, mozjs_anon_sym_BANG_EQ, 1915, 2,
      mozjs_anon_sym_EQ_EQ_EQ, mozjs_anon_sym_BANG_EQ_EQ, 1889, 3, mozjs_anon_sym_in,
      mozjs_anon_sym_LT, mozjs_anon_sym_GT, 1911, 3, mozjs_anon_sym_LT_EQ, mozjs_anon_sym_GT_EQ,
      mozjs_anon_sym_instanceof, 1835, 5, mozjs_sym__automatic_semicolon, mozjs_anon_sym_COMMA,
      mozjs_anon_sym_RBRACE, mozjs_anon_sym_SEMI, mozjs_anon_sym_BQUOTE]"

definition mozjs_small_run_24352 :: "nat list" where
  "mozjs_small_run_24352 =
    [3, 5, 2, mozjs_sym_html_comment, mozjs_sym_comment, 1624, 12, mozjs_anon_sym_STAR,
      mozjs_anon_sym_in, mozjs_anon_sym_LT, mozjs_anon_sym_GT, mozjs_anon_sym_GT_GT,
      mozjs_anon_sym_AMP, mozjs_anon_sym_PIPE, mozjs_anon_sym_PLUS, mozjs_anon_sym_DASH,
      mozjs_anon_sym_SLASH, mozjs_anon_sym_EQ_EQ, mozjs_anon_sym_BANG_EQ, 1626, 26,
      mozjs_sym__automatic_semicolon, mozjs_sym__ternary_qmark, mozjs_anon_sym_COMMA,
      mozjs_anon_sym_RBRACE, mozjs_anon_sym_of, mozjs_anon_sym_LPAREN, mozjs_anon_sym_SEMI,
      mozjs_anon_sym_LBRACK, mozjs_anon_sym_DOT, mozjs_sym_optional_chain,
      mozjs_anon_sym_AMP_AMP, mozjs_anon_sym_PIPE_PIPE, mozjs_anon_sym_GT_GT_GT,
      mozjs_anon_sym_LT_LT, mozjs_anon_sym_CARET, mozjs_anon_sym_PERCENT,
      mozjs_anon_sym_STAR_STAR, mozjs_anon_sym_LT_EQ, mozjs_anon_sym_EQ_EQ_EQ,
      mozjs_anon_sym_BANG_EQ_EQ, mozjs_anon_sym_GT_EQ, mozjs_anon_sym_QMARK_QMARK,
      mozjs_anon_sym_instanceof, mozjs_anon_sym_PLUS_PLUS, mozjs_anon_sym_DASH_DASH,
      mozjs_anon_sym_BQUOTE]"

definition mozjs_small_run_24399 :: "nat list" where
  "mozjs_small_run_24399 =
    [10, 1827, 1, mozjs_anon_sym_LPAREN, 1829, 1, mozjs_anon_sym_LBRACK, 1831, 1,
      mozjs_anon_sym_DOT, 1845, 1, mozjs_sym_optional_chain, 1909, 1, mozjs_anon_sym_STAR_STAR,
      804, 1, mozjs_sym_arguments, 5, 2, mozjs_sym_html_comment, mozjs_sym_comment, 1849, 2,
      mozjs_anon_sym_PLUS_PLUS, mozjs_anon_sym_DASH_DASH, 1797, 12, mozjs_anon_sym_STAR,
      mozjs_anon_sym_in, mozjs_anon_sym_LT, mozjs_anon_sym_GT, mozjs_anon_sym_GT_GT,
      mozjs_anon_sym_AMP, mozjs_anon_sym_PIPE, mozjs_anon_sym_PLUS, mozjs_anon_sym_DASH,
      mozjs_anon_sym_SLASH, mozjs_anon_sym_EQ_EQ, mozjs_anon_sym_BANG_EQ, 1789, 18,
      mozjs_sym__automatic_semicolon, mozjs_sym__ternary_qmark, mozjs_anon_sym_COMMA,
      mozjs_anon_sym_RBRACE, mozjs_anon_sym_SEMI, mozjs_anon_sym_AMP_AMP,
      mozjs_anon_sym_PIPE_PIPE, mozjs_anon_sym_GT_GT_GT, mozjs_anon_sym_LT_LT,
      mozjs_anon_sym_CARET, mozjs_anon_sym_PERCENT, mozjs_anon_sym_LT_EQ,
      mozjs_anon_sym_EQ_EQ_EQ, mozjs_anon_sym_BANG_EQ_EQ, mozjs_anon_sym_GT_EQ,
      mozjs_anon_sym_QMARK_QMARK, mozjs_anon_sym_instanceof, mozjs_anon_sym_BQUOTE]"

definition mozjs_small_run_24460 :: "nat list" where
  "mozjs_small_run_24460 =
    [4, 1885, 1, mozjs_sym_regex_flags, 5, 2, mozjs_sym_html_comment, mozjs_sym_comment, 1696,
      14, mozjs_anon_sym_STAR, mozjs_anon_sym_of, mozjs_anon_sym_in, mozjs_anon_sym_LT,
      mozjs_anon_sym_GT, mozjs_anon_sym_GT_GT, mozjs_anon_sym_AMP, mozjs_anon_sym_PIPE,
      mozjs_anon_sym_PLUS, mozjs_anon_sym_DASH, mozjs_anon_sym_SLASH, mozjs_anon_sym_EQ_EQ,
      mozjs_anon_sym_BANG_EQ, mozjs_anon_sym_instanceof, 1698, 23,
      mozjs_sym__automatic_semicolon, mozjs_sym__ternary_qmark, mozjs_anon_sym_COMMA,
      mozjs_anon_sym_LPAREN, mozjs_anon_sym_SEMI, mozjs_anon_sym_LBRACK, mozjs_anon_sym_DOT,
      mozjs_sym_optional_chain, mozjs_anon_sym_AMP_AMP, mozjs_anon_sym_PIPE_PIPE,
      mozjs_anon_sym_GT_GT_GT, mozjs_anon_sym_LT_LT, mozjs_anon_sym_CARET,
      mozjs_anon_sym_PERCENT, mozjs_anon_sym_STAR_STAR, mozjs_anon_sym_LT_EQ,
      mozjs_anon_sym_EQ_EQ_EQ, mozjs_anon_sym_BANG_EQ_EQ, mozjs_anon_sym_GT_EQ,
      mozjs_anon_sym_QMARK_QMARK, mozjs_anon_sym_PLUS_PLUS, mozjs_anon_sym_DASH_DASH,
      mozjs_anon_sym_BQUOTE]"

definition mozjs_small_run_24509 :: "nat list" where
  "mozjs_small_run_24509 =
    [21, 1827, 1, mozjs_anon_sym_LPAREN, 1829, 1, mozjs_anon_sym_LBRACK, 1831, 1,
      mozjs_anon_sym_DOT, 1845, 1, mozjs_sym_optional_chain, 1895, 1, mozjs_anon_sym_GT_GT, 1899,
      1, mozjs_anon_sym_AMP, 1901, 1, mozjs_anon_sym_CARET, 1903, 1, mozjs_anon_sym_PIPE, 1907,
      1, mozjs_anon_sym_PERCENT, 1909, 1, mozjs_anon_sym_STAR_STAR, 804, 1, mozjs_sym_arguments,
      5, 2, mozjs_sym_html_comment, mozjs_sym_comment, 1849, 2, mozjs_anon_sym_PLUS_PLUS,
      mozjs_anon_sym_DASH_DASH, 1887, 2, mozjs_anon_sym_STAR, mozjs_anon_sym_SLASH, 1897, 2,
      mozjs_anon_sym_GT_GT_GT, mozjs_anon_sym_LT_LT, 1905, 2, mozjs_anon_sym_PLUS,
      mozjs_anon_sym_DASH, 1913, 2, mozjs_anon_sym_EQ_EQ, mozjs_anon_sym_BANG_EQ, 1915, 2,
      mozjs_anon_sym_EQ_EQ_EQ, mozjs_anon_sym_BANG_EQ_EQ, 1889, 3, mozjs_anon_sym_in,
      mozjs_anon_sym_LT, mozjs_anon_sym_GT, 1911, 3, mozjs_anon_sym_LT_EQ, mozjs_anon_sym_GT_EQ,
      mozjs_anon_sym_instanceof, 1789, 9, mozjs_sym__automatic_semicolon,
      mozjs_sym__ternary_qmark, mozjs_anon_sym_COMMA, mozjs_anon_sym_RBRACE, mozjs_anon_sym_SEMI,
      mozjs_anon_sym_AMP_AMP, mozjs_anon_sym_PIPE_PIPE, mozjs_anon_sym_QMARK_QMARK,
      mozjs_anon_sym_BQUOTE]"

definition mozjs_small_run_24592 :: "nat list" where
  "mozjs_small_run_24592 =
    [3, 5, 2, mozjs_sym_html_comment, mozjs_sym_comment, 1616, 12, mozjs_anon_sym_STAR,
      mozjs_anon_sym_in, mozjs_anon_sym_LT, mozjs_anon_sym_GT, mozjs_anon_sym_GT_GT,
      mozjs_anon_sym_AMP, mozjs_anon_sym_PIPE, mozjs_anon_sym_PLUS, mozjs_anon_sym_DASH,
      mozjs_anon_sym_SLASH, mozjs_anon_sym_EQ_EQ, mozjs_anon_sym_BANG_EQ, 1618, 26,
      mozjs_sym__automatic_semicolon, mozjs_sym__ternary_qmark, mozjs_anon_sym_COMMA,
      mozjs_anon_sym_RBRACE, mozjs_anon_sym_of, mozjs_anon_sym_LPAREN, mozjs_anon_sym_SEMI,
      mozjs_anon_sym_LBRACK, mozjs_anon_sym_DOT, mozjs_sym_optional_chain,
      mozjs_anon_sym_AMP_AMP, mozjs_anon_sym_PIPE_PIPE, mozjs_anon_sym_GT_GT_GT,
      mozjs_anon_sym_LT_LT, mozjs_anon_sym_CARET, mozjs_anon_sym_PERCENT,
      mozjs_anon_sym_STAR_STAR, mozjs_anon_sym_LT_EQ, mozjs_anon_sym_EQ_EQ_EQ,
      mozjs_anon_sym_BANG_EQ_EQ, mozjs_anon_sym_GT_EQ, mozjs_anon_sym_QMARK_QMARK,
      mozjs_anon_sym_instanceof, mozjs_anon_sym_PLUS_PLUS, mozjs_anon_sym_DASH_DASH,
      mozjs_anon_sym_BQUOTE]"

definition mozjs_small_run_24639 :: "nat list" where
  "mozjs_small_run_24639 =
    [22, 1827, 1, mozjs_anon_sym_LPAREN, 1829, 1, mozjs_anon_sym_LBRACK, 1831, 1,
      mozjs_anon_sym_DOT, 1845, 1, mozjs_sym_optional_chain, 1891, 1, mozjs_anon_sym_AMP_AMP,
      1895, 1, mozjs_anon_sym_GT_GT, 1899, 1, mozjs_anon_sym_AMP, 1901, 1, mozjs_anon_sym_CARET,
      1903, 1, mozjs_anon_sym_PIPE, 1907, 1, mozjs_anon_sym_PERCENT, 1909, 1,
      mozjs_anon_sym_STAR_STAR, 804, 1, mozjs_sym_arguments, 5, 2, mozjs_sym_html_comment,
      mozjs_sym_comment, 1849, 2, mozjs_anon_sym_PLUS_PLUS, mozjs_anon_sym_DASH_DASH, 1887, 2,
      mozjs_anon_sym_STAR, mozjs_anon_sym_SLASH, 1897, 2, mozjs_anon_sym_GT_GT_GT,
      mozjs_anon_sym_LT_LT, 1905, 2, mozjs_anon_sym_PLUS, mozjs_anon_sym_DASH, 1913, 2,
      mozjs_anon_sym_EQ_EQ, mozjs_anon_sym_BANG_EQ, 1915, 2, mozjs_anon_sym_EQ_EQ_EQ,
      mozjs_anon_sym_BANG_EQ_EQ, 1889, 3, mozjs_anon_sym_in, mozjs_anon_sym_LT,
      mozjs_anon_sym_GT, 1911, 3, mozjs_anon_sym_LT_EQ, mozjs_anon_sym_GT_EQ,
      mozjs_anon_sym_instanceof, 1789, 8, mozjs_sym__automatic_semicolon,
      mozjs_sym__ternary_qmark, mozjs_anon_sym_COMMA, mozjs_anon_sym_RBRACE, mozjs_anon_sym_SEMI,
      mozjs_anon_sym_PIPE_PIPE, mozjs_anon_sym_QMARK_QMARK, mozjs_anon_sym_BQUOTE]"

definition mozjs_small_run_24724 :: "nat list" where
  "mozjs_small_run_24724 =
    [5, 757, 1, mozjs_sym__automatic_semicolon, 5, 2, mozjs_sym_html_comment, mozjs_sym_comment,
      749, 2, mozjs_anon_sym_else, mozjs_anon_sym_while, 753, 12, mozjs_anon_sym_STAR,
      mozjs_anon_sym_in, mozjs_anon_sym_LT, mozjs_anon_sym_GT, mozjs_anon_sym_GT_GT,
      mozjs_anon_sym_AMP, mozjs_anon_sym_PIPE, mozjs_anon_sym_PLUS, mozjs_anon_sym_DASH,
      mozjs_anon_sym_SLASH, mozjs_anon_sym_EQ_EQ, mozjs_anon_sym_BANG_EQ, 755, 23,
      mozjs_sym__ternary_qmark, mozjs_anon_sym_COMMA, mozjs_anon_sym_LPAREN, mozjs_anon_sym_SEMI,
      mozjs_anon_sym_LBRACK, mozjs_anon_sym_DOT, mozjs_sym_optional_chain,
      mozjs_anon_sym_AMP_AMP, mozjs_anon_sym_PIPE_PIPE, mozjs_anon_sym_GT_GT_GT,
      mozjs_anon_sym_LT_LT, mozjs_anon_sym_CARET, mozjs_anon_sym_PERCENT,
      mozjs_anon_sym_STAR_STAR, mozjs_anon_sym_LT_EQ, mozjs_anon_sym_EQ_EQ_EQ,
      mozjs_anon_sym_BANG_EQ_EQ, mozjs_anon_sym_GT_EQ, mozjs_anon_sym_QMARK_QMARK,
      mozjs_anon_sym_instanceof, mozjs_anon_sym_PLUS_PLUS, mozjs_anon_sym_DASH_DASH,
      mozjs_anon_sym_BQUOTE]"

definition mozjs_small_run_24775 :: "nat list" where
  "mozjs_small_run_24775 =
    [25, 1827, 1, mozjs_anon_sym_LPAREN, 1829, 1, mozjs_anon_sym_LBRACK, 1831, 1,
      mozjs_anon_sym_DOT, 1845, 1, mozjs_sym_optional_chain, 1891, 1, mozjs_anon_sym_AMP_AMP,
      1893, 1, mozjs_anon_sym_PIPE_PIPE, 1895, 1, mozjs_anon_sym_GT_GT, 1899, 1,
      mozjs_anon_sym_AMP, 1901, 1, mozjs_anon_sym_CARET, 1903, 1, mozjs_anon_sym_PIPE, 1907, 1,
      mozjs_anon_sym_PERCENT, 1909, 1, mozjs_anon_sym_STAR_STAR, 1917, 1,
      mozjs_anon_sym_QMARK_QMARK, 1919, 1, mozjs_sym__ternary_qmark, 804, 1, mozjs_sym_arguments,
      5, 2, mozjs_sym_html_comment, mozjs_sym_comment, 1849, 2, mozjs_anon_sym_PLUS_PLUS,
      mozjs_anon_sym_DASH_DASH, 1887, 2, mozjs_anon_sym_STAR, mozjs_anon_sym_SLASH, 1897, 2,
      mozjs_anon_sym_GT_GT_GT, mozjs_anon_sym_LT_LT, 1905, 2, mozjs_anon_sym_PLUS,
      mozjs_anon_sym_DASH, 1913, 2, mozjs_anon_sym_EQ_EQ, mozjs_anon_sym_BANG_EQ, 1915, 2,
      mozjs_anon_sym_EQ_EQ_EQ, mozjs_anon_sym_BANG_EQ_EQ, 1889, 3, mozjs_anon_sym_in,
      mozjs_anon_sym_LT, mozjs_anon_sym_GT, 1911, 3, mozjs_anon_sym_LT_EQ, mozjs_anon_sym_GT_EQ,
      mozjs_anon_sym_instanceof, 1630, 5, mozjs_sym__automatic_semicolon, mozjs_anon_sym_COMMA,
      mozjs_anon_sym_RBRACE, mozjs_anon_sym_SEMI, mozjs_anon_sym_BQUOTE]"

definition mozjs_small_run_24866 :: "nat list" where
  "mozjs_small_run_24866 =
    [5, 1777, 1, mozjs_anon_sym_EQ, 5, 2, mozjs_sym_html_comment, mozjs_sym_comment, 1921, 4,
      mozjs_anon_sym_COMMA, mozjs_anon_sym_RBRACE, mozjs_anon_sym_RPAREN, mozjs_anon_sym_RBRACK,
      1770, 12, mozjs_anon_sym_STAR, mozjs_anon_sym_in, mozjs_anon_sym_LT, mozjs_anon_sym_GT,
      mozjs_anon_sym_GT_GT, mozjs_anon_sym_AMP, mozjs_anon_sym_PIPE, mozjs_anon_sym_PLUS,
      mozjs_anon_sym_DASH, mozjs_anon_sym_SLASH, mozjs_anon_sym_EQ_EQ, mozjs_anon_sym_BANG_EQ,
      1772, 21, mozjs_sym__ternary_qmark, mozjs_anon_sym_LPAREN, mozjs_anon_sym_LBRACK,
      mozjs_anon_sym_DOT, mozjs_sym_optional_chain, mozjs_anon_sym_AMP_AMP,
      mozjs_anon_sym_PIPE_PIPE, mozjs_anon_sym_GT_GT_GT, mozjs_anon_sym_LT_LT,
      mozjs_anon_sym_CARET, mozjs_anon_sym_PERCENT, mozjs_anon_sym_STAR_STAR,
      mozjs_anon_sym_LT_EQ, mozjs_anon_sym_EQ_EQ_EQ, mozjs_anon_sym_BANG_EQ_EQ,
      mozjs_anon_sym_GT_EQ, mozjs_anon_sym_QMARK_QMARK, mozjs_anon_sym_instanceof,
      mozjs_anon_sym_PLUS_PLUS, mozjs_anon_sym_DASH_DASH, mozjs_anon_sym_BQUOTE]"

definition mozjs_small_run_24917 :: "nat list" where
  "mozjs_small_run_24917 =
    [13, 1827, 1, mozjs_anon_sym_LPAREN, 1829, 1, mozjs_anon_sym_LBRACK, 1831, 1,
      mozjs_anon_sym_DOT, 1845, 1, mozjs_sym_optional_chain, 1907, 1, mozjs_anon_sym_PERCENT,
      1909, 1, mozjs_anon_sym_STAR_STAR, 804, 1, mozjs_sym_arguments, 5, 2,
      mozjs_sym_html_comment, mozjs_sym_comment, 1849, 2, mozjs_anon_sym_PLUS_PLUS,
      mozjs_anon_sym_DASH_DASH, 1887, 2, mozjs_anon_sym_STAR, mozjs_anon_sym_SLASH, 1905, 2,
      mozjs_anon_sym_PLUS, mozjs_anon_sym_DASH, 1797, 8, mozjs_anon_sym_in, mozjs_anon_sym_LT,
      mozjs_anon_sym_GT, mozjs_anon_sym_GT_GT, mozjs_anon_sym_AMP, mozjs_anon_sym_PIPE,
      mozjs_anon_sym_EQ_EQ, mozjs_anon_sym_BANG_EQ, 1789, 17, mozjs_sym__automatic_semicolon,
      mozjs_sym__ternary_qmark, mozjs_anon_sym_COMMA, mozjs_anon_sym_RBRACE, mozjs_anon_sym_SEMI,
      mozjs_anon_sym_AMP_AMP, mozjs_anon_sym_PIPE_PIPE, mozjs_anon_sym_GT_GT_GT,
      mozjs_anon_sym_LT_LT, mozjs_anon_sym_CARET, mozjs_anon_sym_LT_EQ, mozjs_anon_sym_EQ_EQ_EQ,
      mozjs_anon_sym_BANG_EQ_EQ, mozjs_anon_sym_GT_EQ, mozjs_anon_sym_QMARK_QMARK,
      mozjs_anon_sym_instanceof, mozjs_anon_sym_BQUOTE]"

definition mozjs_small_run_24984 :: "nat list" where
  "mozjs_small_run_24984 =
    [5, 1639, 1, mozjs_anon_sym_EQ, 5, 2, mozjs_sym_html_comment, mozjs_sym_comment, 1923, 4,
      mozjs_anon_sym_COMMA, mozjs_anon_sym_RBRACE, mozjs_anon_sym_RPAREN, mozjs_anon_sym_RBRACK,
      1632, 12, mozjs_anon_sym_STAR, mozjs_anon_sym_in, mozjs_anon_sym_LT, mozjs_anon_sym_GT,
      mozjs_anon_sym_GT_GT, mozjs_anon_sym_AMP, mozjs_anon_sym_PIPE, mozjs_anon_sym_PLUS,
      mozjs_anon_sym_DASH, mozjs_anon_sym_SLASH, mozjs_anon_sym_EQ_EQ, mozjs_anon_sym_BANG_EQ,
      1634, 21, mozjs_sym__ternary_qmark, mozjs_anon_sym_LPAREN, mozjs_anon_sym_LBRACK,
      mozjs_anon_sym_DOT, mozjs_sym_optional_chain, mozjs_anon_sym_AMP_AMP,
      mozjs_anon_sym_PIPE_PIPE, mozjs_anon_sym_GT_GT_GT, mozjs_anon_sym_LT_LT,
      mozjs_anon_sym_CARET, mozjs_anon_sym_PERCENT, mozjs_anon_sym_STAR_STAR,
      mozjs_anon_sym_LT_EQ, mozjs_anon_sym_EQ_EQ_EQ, mozjs_anon_sym_BANG_EQ_EQ,
      mozjs_anon_sym_GT_EQ, mozjs_anon_sym_QMARK_QMARK, mozjs_anon_sym_instanceof,
      mozjs_anon_sym_PLUS_PLUS, mozjs_anon_sym_DASH_DASH, mozjs_anon_sym_BQUOTE]"

definition mozjs_small_run_25035 :: "nat list" where
  "mozjs_small_run_25035 =
    [5, 725, 1, mozjs_anon_sym_EQ, 5, 2, mozjs_sym_html_comment, mozjs_sym_comment, 1925, 4,
      mozjs_anon_sym_COMMA, mozjs_anon_sym_RBRACE, mozjs_anon_sym_RPAREN, mozjs_anon_sym_RBRACK,
      721, 12, mozjs_anon_sym_STAR, mozjs_anon_sym_in, mozjs_anon_sym_LT, mozjs_anon_sym_GT,
      mozjs_anon_sym_GT_GT, mozjs_anon_sym_AMP, mozjs_anon_sym_PIPE, mozjs_anon_sym_PLUS,
      mozjs_anon_sym_DASH, mozjs_anon_sym_SLASH, mozjs_anon_sym_EQ_EQ, mozjs_anon_sym_BANG_EQ,
      723, 21, mozjs_sym__ternary_qmark, mozjs_anon_sym_LPAREN, mozjs_anon_sym_LBRACK,
      mozjs_anon_sym_DOT, mozjs_sym_optional_chain, mozjs_anon_sym_AMP_AMP,
      mozjs_anon_sym_PIPE_PIPE, mozjs_anon_sym_GT_GT_GT, mozjs_anon_sym_LT_LT,
      mozjs_anon_sym_CARET, mozjs_anon_sym_PERCENT, mozjs_anon_sym_STAR_STAR,
      mozjs_anon_sym_LT_EQ, mozjs_anon_sym_EQ_EQ_EQ, mozjs_anon_sym_BANG_EQ_EQ,
      mozjs_anon_sym_GT_EQ, mozjs_anon_sym_QMARK_QMARK, mozjs_anon_sym_instanceof,
      mozjs_anon_sym_PLUS_PLUS, mozjs_anon_sym_DASH_DASH, mozjs_anon_sym_BQUOTE]"

definition mozjs_small_run_25086 :: "nat list" where
  "mozjs_small_run_25086 =
    [3, 5, 2, mozjs_sym_html_comment, mozjs_sym_comment, 1672, 12, mozjs_anon_sym_STAR,
      mozjs_anon_sym_in, mozjs_anon_sym_LT, mozjs_anon_sym_GT, mozjs_anon_sym_GT_GT,
      mozjs_anon_sym_AMP, mozjs_anon_sym_PIPE, mozjs_anon_sym_PLUS, mozjs_anon_sym_DASH,
      mozjs_anon_sym_SLASH, mozjs_anon_sym_EQ_EQ, mozjs_anon_sym_BANG_EQ, 1674, 26,
      mozjs_sym__automatic_semicolon, mozjs_sym__ternary_qmark, mozjs_anon_sym_COMMA,
      mozjs_anon_sym_RBRACE, mozjs_anon_sym_of, mozjs_anon_sym_LPAREN, mozjs_anon_sym_SEMI,
      mozjs_anon_sym_LBRACK, mozjs_anon_sym_DOT, mozjs_sym_optional_chain,
      mozjs_anon_sym_AMP_AMP, mozjs_anon_sym_PIPE_PIPE, mozjs_anon_sym_GT_GT_GT,
      mozjs_anon_sym_LT_LT, mozjs_anon_sym_CARET, mozjs_anon_sym_PERCENT,
      mozjs_anon_sym_STAR_STAR, mozjs_anon_sym_LT_EQ, mozjs_anon_sym_EQ_EQ_EQ,
      mozjs_anon_sym_BANG_EQ_EQ, mozjs_anon_sym_GT_EQ, mozjs_anon_sym_QMARK_QMARK,
      mozjs_anon_sym_instanceof, mozjs_anon_sym_PLUS_PLUS, mozjs_anon_sym_DASH_DASH,
      mozjs_anon_sym_BQUOTE]"

definition mozjs_small_run_25133 :: "nat list" where
  "mozjs_small_run_25133 =
    [19, 1827, 1, mozjs_anon_sym_LPAREN, 1829, 1, mozjs_anon_sym_LBRACK, 1831, 1,
      mozjs_anon_sym_DOT, 1845, 1, mozjs_sym_optional_chain, 1895, 1, mozjs_anon_sym_GT_GT, 1907,
      1, mozjs_anon_sym_PERCENT, 1909, 1, mozjs_anon_sym_STAR_STAR, 804, 1, mozjs_sym_arguments,
      5, 2, mozjs_sym_html_comment, mozjs_sym_comment, 1797, 2, mozjs_anon_sym_AMP,
      mozjs_anon_sym_PIPE, 1849, 2, mozjs_anon_sym_PLUS_PLUS, mozjs_anon_sym_DASH_DASH, 1887, 2,
      mozjs_anon_sym_STAR, mozjs_anon_sym_SLASH, 1897, 2, mozjs_anon_sym_GT_GT_GT,
      mozjs_anon_sym_LT_LT, 1905, 2, mozjs_anon_sym_PLUS, mozjs_anon_sym_DASH, 1913, 2,
      mozjs_anon_sym_EQ_EQ, mozjs_anon_sym_BANG_EQ, 1915, 2, mozjs_anon_sym_EQ_EQ_EQ,
      mozjs_anon_sym_BANG_EQ_EQ, 1889, 3, mozjs_anon_sym_in, mozjs_anon_sym_LT,
      mozjs_anon_sym_GT, 1911, 3, mozjs_anon_sym_LT_EQ, mozjs_anon_sym_GT_EQ,
      mozjs_anon_sym_instanceof, 1789, 10, mozjs_sym__automatic_semicolon,
      mozjs_sym__ternary_qmark, mozjs_anon_sym_COMMA, mozjs_anon_sym_RBRACE, mozjs_anon_sym_SEMI,
      mozjs_anon_sym_AMP_AMP, mozjs_anon_sym_PIPE_PIPE, mozjs_anon_sym_CARET,
      mozjs_anon_sym_QMARK_QMARK, mozjs_anon_sym_BQUOTE]"

definition mozjs_small_run_25212 :: "nat list" where
  "mozjs_small_run_25212 =
    [5, 787, 1, mozjs_sym__automatic_semicolon, 5, 2, mozjs_sym_html_comment, mozjs_sym_comment,
      779, 2, mozjs_anon_sym_else, mozjs_anon_sym_while, 783, 12, mozjs_anon_sym_STAR,
      mozjs_anon_sym_in, mozjs_anon_sym_LT, mozjs_anon_sym_GT, mozjs_anon_sym_GT_GT,
      mozjs_anon_sym_AMP, mozjs_anon_sym_PIPE, mozjs_anon_sym_PLUS, mozjs_anon_sym_DASH,
      mozjs_anon_sym_SLASH, mozjs_anon_sym_EQ_EQ, mozjs_anon_sym_BANG_EQ, 785, 23,
      mozjs_sym__ternary_qmark, mozjs_anon_sym_COMMA, mozjs_anon_sym_LPAREN, mozjs_anon_sym_SEMI,
      mozjs_anon_sym_LBRACK, mozjs_anon_sym_DOT, mozjs_sym_optional_chain,
      mozjs_anon_sym_AMP_AMP, mozjs_anon_sym_PIPE_PIPE, mozjs_anon_sym_GT_GT_GT,
      mozjs_anon_sym_LT_LT, mozjs_anon_sym_CARET, mozjs_anon_sym_PERCENT,
      mozjs_anon_sym_STAR_STAR, mozjs_anon_sym_LT_EQ, mozjs_anon_sym_EQ_EQ_EQ,
      mozjs_anon_sym_BANG_EQ_EQ, mozjs_anon_sym_GT_EQ, mozjs_anon_sym_QMARK_QMARK,
      mozjs_anon_sym_instanceof, mozjs_anon_sym_PLUS_PLUS, mozjs_anon_sym_DASH_DASH,
      mozjs_anon_sym_BQUOTE]"

definition mozjs_small_run_25263 :: "nat list" where
  "mozjs_small_run_25263 =
    [20, 1797, 1, mozjs_anon_sym_PIPE, 1827, 1, mozjs_anon_sym_LPAREN, 1829, 1,
      mozjs_anon_sym_LBRACK, 1831, 1, mozjs_anon_sym_DOT, 1845, 1, mozjs_sym_optional_chain,
      1895, 1, mozjs_anon_sym_GT_GT, 1899, 1, mozjs_anon_sym_AMP, 1907, 1,
      mozjs_anon_sym_PERCENT, 1909, 1, mozjs_anon_sym_STAR_STAR, 804, 1, mozjs_sym_arguments, 5,
      2, mozjs_sym_html_comment, mozjs_sym_comment, 1849, 2, mozjs_anon_sym_PLUS_PLUS,
      mozjs_anon_sym_DASH_DASH, 1887, 2, mozjs_anon_sym_STAR, mozjs_anon_sym_SLASH, 1897, 2,
      mozjs_anon_sym_GT_GT_GT, mozjs_anon_sym_LT_LT, 1905, 2, mozjs_anon_sym_PLUS,
      mozjs_anon_sym_DASH, 1913, 2, mozjs_anon_sym_EQ_EQ, mozjs_anon_sym_BANG_EQ, 1915, 2,
      mozjs_anon_sym_EQ_EQ_EQ, mozjs_anon_sym_BANG_EQ_EQ, 1889, 3, mozjs_anon_sym_in,
      mozjs_anon_sym_LT, mozjs_anon_sym_GT, 1911, 3, mozjs_anon_sym_LT_EQ, mozjs_anon_sym_GT_EQ,
      mozjs_anon_sym_instanceof, 1789, 10, mozjs_sym__automatic_semicolon,
      mozjs_sym__ternary_qmark, mozjs_anon_sym_COMMA, mozjs_anon_sym_RBRACE, mozjs_anon_sym_SEMI,
      mozjs_anon_sym_AMP_AMP, mozjs_anon_sym_PIPE_PIPE, mozjs_anon_sym_CARET,
      mozjs_anon_sym_QMARK_QMARK, mozjs_anon_sym_BQUOTE]"

definition mozjs_small_run_25344 :: "nat list" where
  "mozjs_small_run_25344 =
    [3, 5, 2, mozjs_sym_html_comment, mozjs_sym_comment, 1676, 12, mozjs_anon_sym_STAR,
      mozjs_anon_sym_in, mozjs_anon_sym_LT, mozjs_anon_sym_GT, mozjs_anon_sym_GT_GT,
      mozjs_anon_sym_AMP, mozjs_anon_sym_PIPE, mozjs_anon_sym_PLUS, mozjs_anon_sym_DASH,
      mozjs_anon_sym_SLASH, mozjs_anon_sym_EQ_EQ, mozjs_anon_sym_BANG_EQ, 1678, 26,
      mozjs_sym__automatic_semicolon, mozjs_sym__ternary_qmark, mozjs_anon_sym_COMMA,
      mozjs_anon_sym_RBRACE, mozjs_anon_sym_of, mozjs_anon_sym_LPAREN, mozjs_anon_sym_SEMI,
      mozjs_anon_sym_LBRACK, mozjs_anon_sym_DOT, mozjs_sym_optional_chain,
      mozjs_anon_sym_AMP_AMP, mozjs_anon_sym_PIPE_PIPE, mozjs_anon_sym_GT_GT_GT,
      mozjs_anon_sym_LT_LT, mozjs_anon_sym_CARET, mozjs_anon_sym_PERCENT,
      mozjs_anon_sym_STAR_STAR, mozjs_anon_sym_LT_EQ, mozjs_anon_sym_EQ_EQ_EQ,
      mozjs_anon_sym_BANG_EQ_EQ, mozjs_anon_sym_GT_EQ, mozjs_anon_sym_QMARK_QMARK,
      mozjs_anon_sym_instanceof, mozjs_anon_sym_PLUS_PLUS, mozjs_anon_sym_DASH_DASH,
      mozjs_anon_sym_BQUOTE]"

definition mozjs_small_run_25391 :: "nat list" where
  "mozjs_small_run_25391 =
    [3, 5, 2, mozjs_sym_html_comment, mozjs_sym_comment, 1645, 12, mozjs_anon_sym_STAR,
      mozjs_anon_sym_in, mozjs_anon_sym_LT, mozjs_anon_sym_GT, mozjs_anon_sym_GT_GT,
      mozjs_anon_sym_AMP, mozjs_anon_sym_PIPE, mozjs_anon_sym_PLUS, mozjs_anon_sym_DASH,
      mozjs_anon_sym_SLASH, mozjs_anon_sym_EQ_EQ, mozjs_anon_sym_BANG_EQ, 1647, 26,
      mozjs_sym__automatic_semicolon, mozjs_sym__ternary_qmark, mozjs_anon_sym_COMMA,
      mozjs_anon_sym_RBRACE, mozjs_anon_sym_of, mozjs_anon_sym_LPAREN, mozjs_anon_sym_SEMI,
      mozjs_anon_sym_LBRACK, mozjs_anon_sym_DOT, mozjs_sym_optional_chain,
      mozjs_anon_sym_AMP_AMP, mozjs_anon_sym_PIPE_PIPE, mozjs_anon_sym_GT_GT_GT,
      mozjs_anon_sym_LT_LT, mozjs_anon_sym_CARET, mozjs_anon_sym_PERCENT,
      mozjs_anon_sym_STAR_STAR, mozjs_anon_sym_LT_EQ, mozjs_anon_sym_EQ_EQ_EQ,
      mozjs_anon_sym_BANG_EQ_EQ, mozjs_anon_sym_GT_EQ, mozjs_anon_sym_QMARK_QMARK,
      mozjs_anon_sym_instanceof, mozjs_anon_sym_PLUS_PLUS, mozjs_anon_sym_DASH_DASH,
      mozjs_anon_sym_BQUOTE]"

definition mozjs_small_run_25438 :: "nat list" where
  "mozjs_small_run_25438 =
    [3, 5, 2, mozjs_sym_html_comment, mozjs_sym_comment, 1612, 12, mozjs_anon_sym_STAR,
      mozjs_anon_sym_in, mozjs_anon_sym_LT, mozjs_anon_sym_GT, mozjs_anon_sym_GT_GT,
      mozjs_anon_sym_AMP, mozjs_anon_sym_PIPE, mozjs_anon_sym_PLUS, mozjs_anon_sym_DASH,
      mozjs_anon_sym_SLASH, mozjs_anon_sym_EQ_EQ, mozjs_anon_sym_BANG_EQ, 1614, 26,
      mozjs_sym__automatic_semicolon, mozjs_sym__ternary_qmark, mozjs_anon_sym_COMMA,
      mozjs_anon_sym_RBRACE, mozjs_anon_sym_of, mozjs_anon_sym_LPAREN, mozjs_anon_sym_SEMI,
      mozjs_anon_sym_LBRACK, mozjs_anon_sym_DOT, mozjs_sym_optional_chain,
      mozjs_anon_sym_AMP_AMP, mozjs_anon_sym_PIPE_PIPE, mozjs_anon_sym_GT_GT_GT,
      mozjs_anon_sym_LT_LT, mozjs_anon_sym_CARET, mozjs_anon_sym_PERCENT,
      mozjs_anon_sym_STAR_STAR, mozjs_anon_sym_LT_EQ, mozjs_anon_sym_EQ_EQ_EQ,
      mozjs_anon_sym_BANG_EQ_EQ, mozjs_anon_sym_GT_EQ, mozjs_anon_sym_QMARK_QMARK,
      mozjs_anon_sym_instanceof, mozjs_anon_sym_PLUS_PLUS, mozjs_anon_sym_DASH_DASH,
      mozjs_anon_sym_BQUOTE]"

definition mozjs_small_run_25485 :: "nat list" where
  "mozjs_small_run_25485 =
    [25, 1827, 1, mozjs_anon_sym_LPAREN, 1829, 1, mozjs_anon_sym_LBRACK, 1831, 1,
      mozjs_anon_sym_DOT, 1845, 1, mozjs_sym_optional_chain, 1891, 1, mozjs_anon_sym_AMP_AMP,
      1893, 1, mozjs_anon_sym_PIPE_PIPE, 1895, 1, mozjs_anon_sym_GT_GT, 1899, 1,
      mozjs_anon_sym_AMP, 1901, 1, mozjs_anon_sym_CARET, 1903, 1, mozjs_anon_sym_PIPE, 1907, 1,
      mozjs_anon_sym_PERCENT, 1909, 1, mozjs_anon_sym_STAR_STAR, 1917, 1,
      mozjs_anon_sym_QMARK_QMARK, 1919, 1, mozjs_sym__ternary_qmark, 804, 1, mozjs_sym_arguments,
      5, 2, mozjs_sym_html_comment, mozjs_sym_comment, 1849, 2, mozjs_anon_sym_PLUS_PLUS,
      mozjs_anon_sym_DASH_DASH, 1887, 2, mozjs_anon_sym_STAR, mozjs_anon_sym_SLASH, 1897, 2,
      mozjs_anon_sym_GT_GT_GT, mozjs_anon_sym_LT_LT, 1905, 2, mozjs_anon_sym_PLUS,
      mozjs_anon_sym_DASH, 1913, 2, mozjs_anon_sym_EQ_EQ, mozjs_anon_sym_BANG_EQ, 1915, 2,
      mozjs_anon_sym_EQ_EQ_EQ, mozjs_anon_sym_BANG_EQ_EQ, 1889, 3, mozjs_anon_sym_in,
      mozjs_anon_sym_LT, mozjs_anon_sym_GT, 1911, 3, mozjs_anon_sym_LT_EQ, mozjs_anon_sym_GT_EQ,
      mozjs_anon_sym_instanceof, 1841, 5, mozjs_sym__automatic_semicolon, mozjs_anon_sym_COMMA,
      mozjs_anon_sym_RBRACE, mozjs_anon_sym_SEMI, mozjs_anon_sym_BQUOTE]"

definition mozjs_small_run_25576 :: "nat list" where
  "mozjs_small_run_25576 =
    [3, 5, 2, mozjs_sym_html_comment, mozjs_sym_comment, 793, 12, mozjs_anon_sym_STAR,
      mozjs_anon_sym_in, mozjs_anon_sym_LT, mozjs_anon_sym_GT, mozjs_anon_sym_GT_GT,
      mozjs_anon_sym_AMP, mozjs_anon_sym_PIPE, mozjs_anon_sym_PLUS, mozjs_anon_sym_DASH,
      mozjs_anon_sym_SLASH, mozjs_anon_sym_EQ_EQ, mozjs_anon_sym_BANG_EQ, 795, 26,
      mozjs_sym__automatic_semicolon, mozjs_sym__ternary_qmark, mozjs_anon_sym_COMMA,
      mozjs_anon_sym_RBRACE, mozjs_anon_sym_of, mozjs_anon_sym_LPAREN, mozjs_anon_sym_SEMI,
      mozjs_anon_sym_LBRACK, mozjs_anon_sym_DOT, mozjs_sym_optional_chain,
      mozjs_anon_sym_AMP_AMP, mozjs_anon_sym_PIPE_PIPE, mozjs_anon_sym_GT_GT_GT,
      mozjs_anon_sym_LT_LT, mozjs_anon_sym_CARET, mozjs_anon_sym_PERCENT,
      mozjs_anon_sym_STAR_STAR, mozjs_anon_sym_LT_EQ, mozjs_anon_sym_EQ_EQ_EQ,
      mozjs_anon_sym_BANG_EQ_EQ, mozjs_anon_sym_GT_EQ, mozjs_anon_sym_QMARK_QMARK,
      mozjs_anon_sym_instanceof, mozjs_anon_sym_PLUS_PLUS, mozjs_anon_sym_DASH_DASH,
      mozjs_anon_sym_BQUOTE]"

definition mozjs_small_run_25623 :: "nat list" where
  "mozjs_small_run_25623 =
    [3, 5, 2, mozjs_sym_html_comment, mozjs_sym_comment, 803, 12, mozjs_anon_sym_STAR,
      mozjs_anon_sym_in, mozjs_anon_sym_LT, mozjs_anon_sym_GT, mozjs_anon_sym_GT_GT,
      mozjs_anon_sym_AMP, mozjs_anon_sym_PIPE, mozjs_anon_sym_PLUS, mozjs_anon_sym_DASH,
      mozjs_anon_sym_SLASH, mozjs_anon_sym_EQ_EQ, mozjs_anon_sym_BANG_EQ, 805, 26,
      mozjs_sym__automatic_semicolon, mozjs_sym__ternary_qmark, mozjs_anon_sym_COMMA,
      mozjs_anon_sym_RBRACE, mozjs_anon_sym_of, mozjs_anon_sym_LPAREN, mozjs_anon_sym_SEMI,
      mozjs_anon_sym_LBRACK, mozjs_anon_sym_DOT, mozjs_sym_optional_chain,
      mozjs_anon_sym_AMP_AMP, mozjs_anon_sym_PIPE_PIPE, mozjs_anon_sym_GT_GT_GT,
      mozjs_anon_sym_LT_LT, mozjs_anon_sym_CARET, mozjs_anon_sym_PERCENT,
      mozjs_anon_sym_STAR_STAR, mozjs_anon_sym_LT_EQ, mozjs_anon_sym_EQ_EQ_EQ,
      mozjs_anon_sym_BANG_EQ_EQ, mozjs_anon_sym_GT_EQ, mozjs_anon_sym_QMARK_QMARK,
      mozjs_anon_sym_instanceof, mozjs_anon_sym_PLUS_PLUS, mozjs_anon_sym_DASH_DASH,
      mozjs_anon_sym_BQUOTE]"

definition mozjs_small_run_25670 :: "nat list" where
  "mozjs_small_run_25670 =
    [3, 5, 2, mozjs_sym_html_comment, mozjs_sym_comment, 1680, 12, mozjs_anon_sym_STAR,
      mozjs_anon_sym_in, mozjs_anon_sym_LT, mozjs_anon_sym_GT, mozjs_anon_sym_GT_GT,
      mozjs_anon_sym_AMP, mozjs_anon_sym_PIPE, mozjs_anon_sym_PLUS, mozjs_anon_sym_DASH,
      mozjs_anon_sym_SLASH, mozjs_anon_sym_EQ_EQ, mozjs_anon_sym_BANG_EQ, 1682, 26,
      mozjs_sym__automatic_semicolon, mozjs_sym__ternary_qmark, mozjs_anon_sym_COMMA,
      mozjs_anon_sym_RBRACE, mozjs_anon_sym_of, mozjs_anon_sym_LPAREN, mozjs_anon_sym_SEMI,
      mozjs_anon_sym_LBRACK, mozjs_anon_sym_DOT, mozjs_sym_optional_chain,
      mozjs_anon_sym_AMP_AMP, mozjs_anon_sym_PIPE_PIPE, mozjs_anon_sym_GT_GT_GT,
      mozjs_anon_sym_LT_LT, mozjs_anon_sym_CARET, mozjs_anon_sym_PERCENT,
      mozjs_anon_sym_STAR_STAR, mozjs_anon_sym_LT_EQ, mozjs_anon_sym_EQ_EQ_EQ,
      mozjs_anon_sym_BANG_EQ_EQ, mozjs_anon_sym_GT_EQ, mozjs_anon_sym_QMARK_QMARK,
      mozjs_anon_sym_instanceof, mozjs_anon_sym_PLUS_PLUS, mozjs_anon_sym_DASH_DASH,
      mozjs_anon_sym_BQUOTE]"

definition mozjs_small_run_25717 :: "nat list" where
  "mozjs_small_run_25717 =
    [3, 5, 2, mozjs_sym_html_comment, mozjs_sym_comment, 733, 12, mozjs_anon_sym_STAR,
      mozjs_anon_sym_in, mozjs_anon_sym_LT, mozjs_anon_sym_GT, mozjs_anon_sym_GT_GT,
      mozjs_anon_sym_AMP, mozjs_anon_sym_PIPE, mozjs_anon_sym_PLUS, mozjs_anon_sym_DASH,
      mozjs_anon_sym_SLASH, mozjs_anon_sym_EQ_EQ, mozjs_anon_sym_BANG_EQ, 735, 26,
      mozjs_sym__automatic_semicolon, mozjs_sym__ternary_qmark, mozjs_anon_sym_COMMA,
      mozjs_anon_sym_RBRACE, mozjs_anon_sym_of, mozjs_anon_sym_LPAREN, mozjs_anon_sym_SEMI,
      mozjs_anon_sym_LBRACK, mozjs_anon_sym_DOT, mozjs_sym_optional_chain,
      mozjs_anon_sym_AMP_AMP, mozjs_anon_sym_PIPE_PIPE, mozjs_anon_sym_GT_GT_GT,
      mozjs_anon_sym_LT_LT, mozjs_anon_sym_CARET, mozjs_anon_sym_PERCENT,
      mozjs_anon_sym_STAR_STAR, mozjs_anon_sym_LT_EQ, mozjs_anon_sym_EQ_EQ_EQ,
      mozjs_anon_sym_BANG_EQ_EQ, mozjs_anon_sym_GT_EQ, mozjs_anon_sym_QMARK_QMARK,
      mozjs_anon_sym_instanceof, mozjs_anon_sym_PLUS_PLUS, mozjs_anon_sym_DASH_DASH,
      mozjs_anon_sym_BQUOTE]"

definition mozjs_small_run_25764 :: "nat list" where
  "mozjs_small_run_25764 =
    [21, 1797, 1, mozjs_anon_sym_PIPE, 1827, 1, mozjs_anon_sym_LPAREN, 1829, 1,
      mozjs_anon_sym_LBRACK, 1831, 1, mozjs_anon_sym_DOT, 1845, 1, mozjs_sym_optional_chain,
      1895, 1, mozjs_anon_sym_GT_GT, 1899, 1, mozjs_anon_sym_AMP, 1901, 1, mozjs_anon_sym_CARET,
      1907, 1, mozjs_anon_sym_PERCENT, 1909, 1, mozjs_anon_sym_STAR_STAR, 804, 1,
      mozjs_sym_arguments, 5, 2, mozjs_sym_html_comment, mozjs_sym_comment, 1849, 2,
      mozjs_anon_sym_PLUS_PLUS, mozjs_anon_sym_DASH_DASH, 1887, 2, mozjs_anon_sym_STAR,
      mozjs_anon_sym_SLASH, 1897, 2, mozjs_anon_sym_GT_GT_GT, mozjs_anon_sym_LT_LT, 1905, 2,
      mozjs_anon_sym_PLUS, mozjs_anon_sym_DASH, 1913, 2, mozjs_anon_sym_EQ_EQ,
      mozjs_anon_sym_BANG_EQ, 1915, 2, mozjs_anon_sym_EQ_EQ_EQ, mozjs_anon_sym_BANG_EQ_EQ, 1889,
      3, mozjs_anon_sym_in, mozjs_anon_sym_LT, mozjs_anon_sym_GT, 1911, 3, mozjs_anon_sym_LT_EQ,
      mozjs_anon_sym_GT_EQ, mozjs_anon_sym_instanceof, 1789, 9, mozjs_sym__automatic_semicolon,
      mozjs_sym__ternary_qmark, mozjs_anon_sym_COMMA, mozjs_anon_sym_RBRACE, mozjs_anon_sym_SEMI,
      mozjs_anon_sym_AMP_AMP, mozjs_anon_sym_PIPE_PIPE, mozjs_anon_sym_QMARK_QMARK,
      mozjs_anon_sym_BQUOTE]"

definition mozjs_small_run_25847 :: "nat list" where
  "mozjs_small_run_25847 =
    [12, 1827, 1, mozjs_anon_sym_LPAREN, 1829, 1, mozjs_anon_sym_LBRACK, 1831, 1,
      mozjs_anon_sym_DOT, 1845, 1, mozjs_sym_optional_chain, 1907, 1, mozjs_anon_sym_PERCENT,
      1909, 1, mozjs_anon_sym_STAR_STAR, 804, 1, mozjs_sym_arguments, 5, 2,
      mozjs_sym_html_comment, mozjs_sym_comment, 1849, 2, mozjs_anon_sym_PLUS_PLUS,
      mozjs_anon_sym_DASH_DASH, 1887, 2, mozjs_anon_sym_STAR, mozjs_anon_sym_SLASH, 1797, 10,
      mozjs_anon_sym_in, mozjs_anon_sym_LT, mozjs_anon_sym_GT, mozjs_anon_sym_GT_GT,
      mozjs_anon_sym_AMP, mozjs_anon_sym_PIPE, mozjs_anon_sym_PLUS, mozjs_anon_sym_DASH,
      mozjs_anon_sym_EQ_EQ, mozjs_anon_sym_BANG_EQ, 1789, 17, mozjs_sym__automatic_semicolon,
      mozjs_sym__ternary_qmark, mozjs_anon_sym_COMMA, mozjs_anon_sym_RBRACE, mozjs_anon_sym_SEMI,
      mozjs_anon_sym_AMP_AMP, mozjs_anon_sym_PIPE_PIPE, mozjs_anon_sym_GT_GT_GT,
      mozjs_anon_sym_LT_LT, mozjs_anon_sym_CARET, mozjs_anon_sym_LT_EQ, mozjs_anon_sym_EQ_EQ_EQ,
      mozjs_anon_sym_BANG_EQ_EQ, mozjs_anon_sym_GT_EQ, mozjs_anon_sym_QMARK_QMARK,
      mozjs_anon_sym_instanceof, mozjs_anon_sym_BQUOTE]"

definition mozjs_small_run_25912 :: "nat list" where
  "mozjs_small_run_25912 =
    [10, 1827, 1, mozjs_anon_sym_LPAREN, 1829, 1, mozjs_anon_sym_LBRACK, 1831, 1,
      mozjs_anon_sym_DOT, 1845, 1, mozjs_sym_optional_chain, 1909, 1, mozjs_anon_sym_STAR_STAR,
      804, 1, mozjs_sym_arguments, 5, 2, mozjs_sym_html_comment, mozjs_sym_comment, 1849, 2,
      mozjs_anon_sym_PLUS_PLUS, mozjs_anon_sym_DASH_DASH, 1797, 12, mozjs_anon_sym_STAR,
      mozjs_anon_sym_in, mozjs_anon_sym_LT, mozjs_anon_sym_GT, mozjs_anon_sym_GT_GT,
      mozjs_anon_sym_AMP, mozjs_anon_sym_PIPE, mozjs_anon_sym_PLUS, mozjs_anon_sym_DASH,
      mozjs_anon_sym_SLASH, mozjs_anon_sym_EQ_EQ, mozjs_anon_sym_BANG_EQ, 1789, 18,
      mozjs_sym__automatic_semicolon, mozjs_sym__ternary_qmark, mozjs_anon_sym_COMMA,
      mozjs_anon_sym_RBRACE, mozjs_anon_sym_SEMI, mozjs_anon_sym_AMP_AMP,
      mozjs_anon_sym_PIPE_PIPE, mozjs_anon_sym_GT_GT_GT, mozjs_anon_sym_LT_LT,
      mozjs_anon_sym_CARET, mozjs_anon_sym_PERCENT, mozjs_anon_sym_LT_EQ,
      mozjs_anon_sym_EQ_EQ_EQ, mozjs_anon_sym_BANG_EQ_EQ, mozjs_anon_sym_GT_EQ,
      mozjs_anon_sym_QMARK_QMARK, mozjs_anon_sym_instanceof, mozjs_anon_sym_BQUOTE]"

definition mozjs_small_run_25973 :: "nat list" where
  "mozjs_small_run_25973 =
    [17, 1827, 1, mozjs_anon_sym_LPAREN, 1829, 1, mozjs_anon_sym_LBRACK, 1831, 1,
      mozjs_anon_sym_DOT, 1845, 1, mozjs_sym_optional_chain, 1895, 1, mozjs_anon_sym_GT_GT, 1907,
      1, mozjs_anon_sym_PERCENT, 1909, 1, mozjs_anon_sym_STAR_STAR, 804, 1, mozjs_sym_arguments,
      5, 2, mozjs_sym_html_comment, mozjs_sym_comment, 1849, 2, mozjs_anon_sym_PLUS_PLUS,
      mozjs_anon_sym_DASH_DASH, 1887, 2, mozjs_anon_sym_STAR, mozjs_anon_sym_SLASH, 1897, 2,
      mozjs_anon_sym_GT_GT_GT, mozjs_anon_sym_LT_LT, 1905, 2, mozjs_anon_sym_PLUS,
      mozjs_anon_sym_DASH, 1889, 3, mozjs_anon_sym_in, mozjs_anon_sym_LT, mozjs_anon_sym_GT,
      1911, 3, mozjs_anon_sym_LT_EQ, mozjs_anon_sym_GT_EQ, mozjs_anon_sym_instanceof, 1797, 4,
      mozjs_anon_sym_AMP, mozjs_anon_sym_PIPE, mozjs_anon_sym_EQ_EQ, mozjs_anon_sym_BANG_EQ,
      1789, 12, mozjs_sym__automatic_semicolon, mozjs_sym__ternary_qmark, mozjs_anon_sym_COMMA,
      mozjs_anon_sym_RBRACE, mozjs_anon_sym_SEMI, mozjs_anon_sym_AMP_AMP,
      mozjs_anon_sym_PIPE_PIPE, mozjs_anon_sym_CARET, mozjs_anon_sym_EQ_EQ_EQ,
      mozjs_anon_sym_BANG_EQ_EQ, mozjs_anon_sym_QMARK_QMARK, mozjs_anon_sym_BQUOTE]"

definition mozjs_small_run_26048 :: "nat list" where
  "mozjs_small_run_26048 =
    [5, 1472, 1, mozjs_anon_sym_EQ, 5, 2, mozjs_sym_html_comment, mozjs_sym_comment, 1544, 4,
      mozjs_anon_sym_COMMA, mozjs_anon_sym_RBRACE, mozjs_anon_sym_RPAREN, mozjs_anon_sym_RBRACK,
      1435, 12, mozjs_anon_sym_STAR, mozjs_anon_sym_in, mozjs_anon_sym_LT, mozjs_anon_sym_GT,
      mozjs_anon_sym_GT_GT, mozjs_anon_sym_AMP, mozjs_anon_sym_PIPE, mozjs_anon_sym_PLUS,
      mozjs_anon_sym_DASH, mozjs_anon_sym_SLASH, mozjs_anon_sym_EQ_EQ, mozjs_anon_sym_BANG_EQ,
      1437, 21, mozjs_sym__ternary_qmark, mozjs_anon_sym_LPAREN, mozjs_anon_sym_LBRACK,
      mozjs_anon_sym_DOT, mozjs_sym_optional_chain, mozjs_anon_sym_AMP_AMP,
      mozjs_anon_sym_PIPE_PIPE, mozjs_anon_sym_GT_GT_GT, mozjs_anon_sym_LT_LT,
      mozjs_anon_sym_CARET, mozjs_anon_sym_PERCENT, mozjs_anon_sym_STAR_STAR,
      mozjs_anon_sym_LT_EQ, mozjs_anon_sym_EQ_EQ_EQ, mozjs_anon_sym_BANG_EQ_EQ,
      mozjs_anon_sym_GT_EQ, mozjs_anon_sym_QMARK_QMARK, mozjs_anon_sym_instanceof,
      mozjs_anon_sym_PLUS_PLUS, mozjs_anon_sym_DASH_DASH, mozjs_anon_sym_BQUOTE]"

definition mozjs_small_run_26099 :: "nat list" where
  "mozjs_small_run_26099 =
    [25, 1827, 1, mozjs_anon_sym_LPAREN, 1829, 1, mozjs_anon_sym_LBRACK, 1831, 1,
      mozjs_anon_sym_DOT, 1845, 1, mozjs_sym_optional_chain, 1891, 1, mozjs_anon_sym_AMP_AMP,
      1893, 1, mozjs_anon_sym_PIPE_PIPE, 1895, 1, mozjs_anon_sym_GT_GT, 1899, 1,
      mozjs_anon_sym_AMP, 1901, 1, mozjs_anon_sym_CARET, 1903, 1, mozjs_anon_sym_PIPE, 1907, 1,
      mozjs_anon_sym_PERCENT, 1909, 1, mozjs_anon_sym_STAR_STAR, 1917, 1,
      mozjs_anon_sym_QMARK_QMARK, 1919, 1, mozjs_sym__ternary_qmark, 804, 1, mozjs_sym_arguments,
      5, 2, mozjs_sym_html_comment, mozjs_sym_comment, 1849, 2, mozjs_anon_sym_PLUS_PLUS,
      mozjs_anon_sym_DASH_DASH, 1887, 2, mozjs_anon_sym_STAR, mozjs_anon_sym_SLASH, 1897, 2,
      mozjs_anon_sym_GT_GT_GT, mozjs_anon_sym_LT_LT, 1905, 2, mozjs_anon_sym_PLUS,
      mozjs_anon_sym_DASH, 1913, 2, mozjs_anon_sym_EQ_EQ, mozjs_anon_sym_BANG_EQ, 1915, 2,
      mozjs_anon_sym_EQ_EQ_EQ, mozjs_anon_sym_BANG_EQ_EQ, 1889, 3, mozjs_anon_sym_in,
      mozjs_anon_sym_LT, mozjs_anon_sym_GT, 1911, 3, mozjs_anon_sym_LT_EQ, mozjs_anon_sym_GT_EQ,
      mozjs_anon_sym_instanceof, 1768, 5, mozjs_sym__automatic_semicolon, mozjs_anon_sym_COMMA,
      mozjs_anon_sym_RBRACE, mozjs_anon_sym_SEMI, mozjs_anon_sym_BQUOTE]"

definition mozjs_small_run_26190 :: "nat list" where
  "mozjs_small_run_26190 =
    [23, 1827, 1, mozjs_anon_sym_LPAREN, 1829, 1, mozjs_anon_sym_LBRACK, 1831, 1,
      mozjs_anon_sym_DOT, 1845, 1, mozjs_sym_optional_chain, 1891, 1, mozjs_anon_sym_AMP_AMP,
      1893, 1, mozjs_anon_sym_PIPE_PIPE, 1895, 1, mozjs_anon_sym_GT_GT, 1899, 1,
      mozjs_anon_sym_AMP, 1901, 1, mozjs_anon_sym_CARET, 1903, 1, mozjs_anon_sym_PIPE, 1907, 1,
      mozjs_anon_sym_PERCENT, 1909, 1, mozjs_anon_sym_STAR_STAR, 804, 1, mozjs_sym_arguments, 5,
      2, mozjs_sym_html_comment, mozjs_sym_comment, 1849, 2, mozjs_anon_sym_PLUS_PLUS,
      mozjs_anon_sym_DASH_DASH, 1887, 2, mozjs_anon_sym_STAR, mozjs_anon_sym_SLASH, 1897, 2,
      mozjs_anon_sym_GT_GT_GT, mozjs_anon_sym_LT_LT, 1905, 2, mozjs_anon_sym_PLUS,
      mozjs_anon_sym_DASH, 1913, 2, mozjs_anon_sym_EQ_EQ, mozjs_anon_sym_BANG_EQ, 1915, 2,
      mozjs_anon_sym_EQ_EQ_EQ, mozjs_anon_sym_BANG_EQ_EQ, 1889, 3, mozjs_anon_sym_in,
      mozjs_anon_sym_LT, mozjs_anon_sym_GT, 1911, 3, mozjs_anon_sym_LT_EQ, mozjs_anon_sym_GT_EQ,
      mozjs_anon_sym_instanceof, 1789, 7, mozjs_sym__automatic_semicolon,
      mozjs_sym__ternary_qmark, mozjs_anon_sym_COMMA, mozjs_anon_sym_RBRACE, mozjs_anon_sym_SEMI,
      mozjs_anon_sym_QMARK_QMARK, mozjs_anon_sym_BQUOTE]"

definition mozjs_small_run_26277 :: "nat list" where
  "mozjs_small_run_26277 =
    [3, 5, 2, mozjs_sym_html_comment, mozjs_sym_comment, 1649, 12, mozjs_anon_sym_STAR,
      mozjs_anon_sym_in, mozjs_anon_sym_LT, mozjs_anon_sym_GT, mozjs_anon_sym_GT_GT,
      mozjs_anon_sym_AMP, mozjs_anon_sym_PIPE, mozjs_anon_sym_PLUS, mozjs_anon_sym_DASH,
      mozjs_anon_sym_SLASH, mozjs_anon_sym_EQ_EQ, mozjs_anon_sym_BANG_EQ, 1651, 26,
      mozjs_sym__automatic_semicolon, mozjs_sym__ternary_qmark, mozjs_anon_sym_COMMA,
      mozjs_anon_sym_RBRACE, mozjs_anon_sym_of, mozjs_anon_sym_LPAREN, mozjs_anon_sym_SEMI,
      mozjs_anon_sym_LBRACK, mozjs_anon_sym_DOT, mozjs_sym_optional_chain,
      mozjs_anon_sym_AMP_AMP, mozjs_anon_sym_PIPE_PIPE, mozjs_anon_sym_GT_GT_GT,
      mozjs_anon_sym_LT_LT, mozjs_anon_sym_CARET, mozjs_anon_sym_PERCENT,
      mozjs_anon_sym_STAR_STAR, mozjs_anon_sym_LT_EQ, mozjs_anon_sym_EQ_EQ_EQ,
      mozjs_anon_sym_BANG_EQ_EQ, mozjs_anon_sym_GT_EQ, mozjs_anon_sym_QMARK_QMARK,
      mozjs_anon_sym_instanceof, mozjs_anon_sym_PLUS_PLUS, mozjs_anon_sym_DASH_DASH,
      mozjs_anon_sym_BQUOTE]"

definition mozjs_small_run_26324 :: "nat list" where
  "mozjs_small_run_26324 =
    [3, 5, 2, mozjs_sym_html_comment, mozjs_sym_comment, 1779, 12, mozjs_anon_sym_STAR,
      mozjs_anon_sym_in, mozjs_anon_sym_LT, mozjs_anon_sym_GT, mozjs_anon_sym_GT_GT,
      mozjs_anon_sym_AMP, mozjs_anon_sym_PIPE, mozjs_anon_sym_PLUS, mozjs_anon_sym_DASH,
      mozjs_anon_sym_SLASH, mozjs_anon_sym_EQ_EQ, mozjs_anon_sym_BANG_EQ, 1781, 26,
      mozjs_sym__automatic_semicolon, mozjs_sym__ternary_qmark, mozjs_anon_sym_COMMA,
      mozjs_anon_sym_RBRACE, mozjs_anon_sym_of, mozjs_anon_sym_LPAREN, mozjs_anon_sym_SEMI,
      mozjs_anon_sym_LBRACK, mozjs_anon_sym_DOT, mozjs_sym_optional_chain,
      mozjs_anon_sym_AMP_AMP, mozjs_anon_sym_PIPE_PIPE, mozjs_anon_sym_GT_GT_GT,
      mozjs_anon_sym_LT_LT, mozjs_anon_sym_CARET, mozjs_anon_sym_PERCENT,
      mozjs_anon_sym_STAR_STAR, mozjs_anon_sym_LT_EQ, mozjs_anon_sym_EQ_EQ_EQ,
      mozjs_anon_sym_BANG_EQ_EQ, mozjs_anon_sym_GT_EQ, mozjs_anon_sym_QMARK_QMARK,
      mozjs_anon_sym_instanceof, mozjs_anon_sym_PLUS_PLUS, mozjs_anon_sym_DASH_DASH,
      mozjs_anon_sym_BQUOTE]"

definition mozjs_small_run_26371 :: "nat list" where
  "mozjs_small_run_26371 =
    [3, 5, 2, mozjs_sym_html_comment, mozjs_sym_comment, 1653, 12, mozjs_anon_sym_STAR,
      mozjs_anon_sym_in, mozjs_anon_sym_LT, mozjs_anon_sym_GT, mozjs_anon_sym_GT_GT,
      mozjs_anon_sym_AMP, mozjs_anon_sym_PIPE, mozjs_anon_sym_PLUS, mozjs_anon_sym_DASH,
      mozjs_anon_sym_SLASH, mozjs_anon_sym_EQ_EQ, mozjs_anon_sym_BANG_EQ, 1655, 26,
      mozjs_sym__automatic_semicolon, mozjs_sym__ternary_qmark, mozjs_anon_sym_COMMA,
      mozjs_anon_sym_RBRACE, mozjs_anon_sym_of, mozjs_anon_sym_LPAREN, mozjs_anon_sym_SEMI,
      mozjs_anon_sym_LBRACK, mozjs_anon_sym_DOT, mozjs_sym_optional_chain,
      mozjs_anon_sym_AMP_AMP, mozjs_anon_sym_PIPE_PIPE, mozjs_anon_sym_GT_GT_GT,
      mozjs_anon_sym_LT_LT, mozjs_anon_sym_CARET, mozjs_anon_sym_PERCENT,
      mozjs_anon_sym_STAR_STAR, mozjs_anon_sym_LT_EQ, mozjs_anon_sym_EQ_EQ_EQ,
      mozjs_anon_sym_BANG_EQ_EQ, mozjs_anon_sym_GT_EQ, mozjs_anon_sym_QMARK_QMARK,
      mozjs_anon_sym_instanceof, mozjs_anon_sym_PLUS_PLUS, mozjs_anon_sym_DASH_DASH,
      mozjs_anon_sym_BQUOTE]"

definition mozjs_small_run_26418 :: "nat list" where
  "mozjs_small_run_26418 =
    [3, 5, 2, mozjs_sym_html_comment, mozjs_sym_comment, 1738, 12, mozjs_anon_sym_STAR,
      mozjs_anon_sym_in, mozjs_anon_sym_LT, mozjs_anon_sym_GT, mozjs_anon_sym_GT_GT,
      mozjs_anon_sym_AMP, mozjs_anon_sym_PIPE, mozjs_anon_sym_PLUS, mozjs_anon_sym_DASH,
      mozjs_anon_sym_SLASH, mozjs_anon_sym_EQ_EQ, mozjs_anon_sym_BANG_EQ, 1740, 26,
      mozjs_sym__automatic_semicolon, mozjs_sym__ternary_qmark, mozjs_anon_sym_COMMA,
      mozjs_anon_sym_RBRACE, mozjs_anon_sym_of, mozjs_anon_sym_LPAREN, mozjs_anon_sym_SEMI,
      mozjs_anon_sym_LBRACK, mozjs_anon_sym_DOT, mozjs_sym_optional_chain,
      mozjs_anon_sym_AMP_AMP, mozjs_anon_sym_PIPE_PIPE, mozjs_anon_sym_GT_GT_GT,
      mozjs_anon_sym_LT_LT, mozjs_anon_sym_CARET, mozjs_anon_sym_PERCENT,
      mozjs_anon_sym_STAR_STAR, mozjs_anon_sym_LT_EQ, mozjs_anon_sym_EQ_EQ_EQ,
      mozjs_anon_sym_BANG_EQ_EQ, mozjs_anon_sym_GT_EQ, mozjs_anon_sym_QMARK_QMARK,
      mozjs_anon_sym_instanceof, mozjs_anon_sym_PLUS_PLUS, mozjs_anon_sym_DASH_DASH,
      mozjs_anon_sym_BQUOTE]"

definition mozjs_small_run_26465 :: "nat list" where
  "mozjs_small_run_26465 =
    [3, 5, 2, mozjs_sym_html_comment, mozjs_sym_comment, 1766, 12, mozjs_anon_sym_STAR,
      mozjs_anon_sym_in, mozjs_anon_sym_LT, mozjs_anon_sym_GT, mozjs_anon_sym_GT_GT,
      mozjs_anon_sym_AMP, mozjs_anon_sym_PIPE, mozjs_anon_sym_PLUS, mozjs_anon_sym_DASH,
      mozjs_anon_sym_SLASH, mozjs_anon_sym_EQ_EQ, mozjs_anon_sym_BANG_EQ, 1768, 26,
      mozjs_sym__automatic_semicolon, mozjs_sym__ternary_qmark, mozjs_anon_sym_COMMA,
      mozjs_anon_sym_RBRACE, mozjs_anon_sym_of, mozjs_anon_sym_LPAREN, mozjs_anon_sym_SEMI,
      mozjs_anon_sym_LBRACK, mozjs_anon_sym_DOT, mozjs_sym_optional_chain,
      mozjs_anon_sym_AMP_AMP, mozjs_anon_sym_PIPE_PIPE, mozjs_anon_sym_GT_GT_GT,
      mozjs_anon_sym_LT_LT, mozjs_anon_sym_CARET, mozjs_anon_sym_PERCENT,
      mozjs_anon_sym_STAR_STAR, mozjs_anon_sym_LT_EQ, mozjs_anon_sym_EQ_EQ_EQ,
      mozjs_anon_sym_BANG_EQ_EQ, mozjs_anon_sym_GT_EQ, mozjs_anon_sym_QMARK_QMARK,
      mozjs_anon_sym_instanceof, mozjs_anon_sym_PLUS_PLUS, mozjs_anon_sym_DASH_DASH,
      mozjs_anon_sym_BQUOTE]"

definition mozjs_small_run_26512 :: "nat list" where
  "mozjs_small_run_26512 =
    [3, 5, 2, mozjs_sym_html_comment, mozjs_sym_comment, 1726, 12, mozjs_anon_sym_STAR,
      mozjs_anon_sym_in, mozjs_anon_sym_LT, mozjs_anon_sym_GT, mozjs_anon_sym_GT_GT,
      mozjs_anon_sym_AMP, mozjs_anon_sym_PIPE, mozjs_anon_sym_PLUS, mozjs_anon_sym_DASH,
      mozjs_anon_sym_SLASH, mozjs_anon_sym_EQ_EQ, mozjs_anon_sym_BANG_EQ, 1728, 26,
      mozjs_sym__automatic_semicolon, mozjs_sym__ternary_qmark, mozjs_anon_sym_COMMA,
      mozjs_anon_sym_RBRACE, mozjs_anon_sym_of, mozjs_anon_sym_LPAREN, mozjs_anon_sym_SEMI,
      mozjs_anon_sym_LBRACK, mozjs_anon_sym_DOT, mozjs_sym_optional_chain,
      mozjs_anon_sym_AMP_AMP, mozjs_anon_sym_PIPE_PIPE, mozjs_anon_sym_GT_GT_GT,
      mozjs_anon_sym_LT_LT, mozjs_anon_sym_CARET, mozjs_anon_sym_PERCENT,
      mozjs_anon_sym_STAR_STAR, mozjs_anon_sym_LT_EQ, mozjs_anon_sym_EQ_EQ_EQ,
      mozjs_anon_sym_BANG_EQ_EQ, mozjs_anon_sym_GT_EQ, mozjs_anon_sym_QMARK_QMARK,
      mozjs_anon_sym_instanceof, mozjs_anon_sym_PLUS_PLUS, mozjs_anon_sym_DASH_DASH,
      mozjs_anon_sym_BQUOTE]"

definition mozjs_small_run_26559 :: "nat list" where
  "mozjs_small_run_26559 =
    [3, 5, 2, mozjs_sym_html_comment, mozjs_sym_comment, 1435, 12, mozjs_anon_sym_STAR,
      mozjs_anon_sym_in, mozjs_anon_sym_LT, mozjs_anon_sym_GT, mozjs_anon_sym_GT_GT,
      mozjs_anon_sym_AMP, mozjs_anon_sym_PIPE, mozjs_anon_sym_PLUS, mozjs_anon_sym_DASH,
      mozjs_anon_sym_SLASH, mozjs_anon_sym_EQ_EQ, mozjs_anon_sym_BANG_EQ, 1437, 26,
      mozjs_sym__automatic_semicolon, mozjs_sym__ternary_qmark, mozjs_anon_sym_COMMA,
      mozjs_anon_sym_RBRACE, mozjs_anon_sym_of, mozjs_anon_sym_LPAREN, mozjs_anon_sym_SEMI,
      mozjs_anon_sym_LBRACK, mozjs_anon_sym_DOT, mozjs_sym_optional_chain,
      mozjs_anon_sym_AMP_AMP, mozjs_anon_sym_PIPE_PIPE, mozjs_anon_sym_GT_GT_GT,
      mozjs_anon_sym_LT_LT, mozjs_anon_sym_CARET, mozjs_anon_sym_PERCENT,
      mozjs_anon_sym_STAR_STAR, mozjs_anon_sym_LT_EQ, mozjs_anon_sym_EQ_EQ_EQ,
      mozjs_anon_sym_BANG_EQ_EQ, mozjs_anon_sym_GT_EQ, mozjs_anon_sym_QMARK_QMARK,
      mozjs_anon_sym_instanceof, mozjs_anon_sym_PLUS_PLUS, mozjs_anon_sym_DASH_DASH,
      mozjs_anon_sym_BQUOTE]"

definition mozjs_small_run_26606 :: "nat list" where
  "mozjs_small_run_26606 =
    [3, 5, 2, mozjs_sym_html_comment, mozjs_sym_comment, 1742, 12, mozjs_anon_sym_STAR,
      mozjs_anon_sym_in, mozjs_anon_sym_LT, mozjs_anon_sym_GT, mozjs_anon_sym_GT_GT,
      mozjs_anon_sym_AMP, mozjs_anon_sym_PIPE, mozjs_anon_sym_PLUS, mozjs_anon_sym_DASH,
      mozjs_anon_sym_SLASH, mozjs_anon_sym_EQ_EQ, mozjs_anon_sym_BANG_EQ, 1744, 26,
      mozjs_sym__automatic_semicolon, mozjs_sym__ternary_qmark, mozjs_anon_sym_COMMA,
      mozjs_anon_sym_RBRACE, mozjs_anon_sym_of, mozjs_anon_sym_LPAREN, mozjs_anon_sym_SEMI,
      mozjs_anon_sym_LBRACK, mozjs_anon_sym_DOT, mozjs_sym_optional_chain,
      mozjs_anon_sym_AMP_AMP, mozjs_anon_sym_PIPE_PIPE, mozjs_anon_sym_GT_GT_GT,
      mozjs_anon_sym_LT_LT, mozjs_anon_sym_CARET, mozjs_anon_sym_PERCENT,
      mozjs_anon_sym_STAR_STAR, mozjs_anon_sym_LT_EQ, mozjs_anon_sym_EQ_EQ_EQ,
      mozjs_anon_sym_BANG_EQ_EQ, mozjs_anon_sym_GT_EQ, mozjs_anon_sym_QMARK_QMARK,
      mozjs_anon_sym_instanceof, mozjs_anon_sym_PLUS_PLUS, mozjs_anon_sym_DASH_DASH,
      mozjs_anon_sym_BQUOTE]"

definition mozjs_small_run_26653 :: "nat list" where
  "mozjs_small_run_26653 =
    [3, 5, 2, mozjs_sym_html_comment, mozjs_sym_comment, 1746, 12, mozjs_anon_sym_STAR,
      mozjs_anon_sym_in, mozjs_anon_sym_LT, mozjs_anon_sym_GT, mozjs_anon_sym_GT_GT,
      mozjs_anon_sym_AMP, mozjs_anon_sym_PIPE, mozjs_anon_sym_PLUS, mozjs_anon_sym_DASH,
      mozjs_anon_sym_SLASH, mozjs_anon_sym_EQ_EQ, mozjs_anon_sym_BANG_EQ, 1748, 26,
      mozjs_sym__automatic_semicolon, mozjs_sym__ternary_qmark, mozjs_anon_sym_COMMA,
      mozjs_anon_sym_RBRACE, mozjs_anon_sym_of, mozjs_anon_sym_LPAREN, mozjs_anon_sym_SEMI,
      mozjs_anon_sym_LBRACK, mozjs_anon_sym_DOT, mozjs_sym_optional_chain,
      mozjs_anon_sym_AMP_AMP, mozjs_anon_sym_PIPE_PIPE, mozjs_anon_sym_GT_GT_GT,
      mozjs_anon_sym_LT_LT, mozjs_anon_sym_CARET, mozjs_anon_sym_PERCENT,
      mozjs_anon_sym_STAR_STAR, mozjs_anon_sym_LT_EQ, mozjs_anon_sym_EQ_EQ_EQ,
      mozjs_anon_sym_BANG_EQ_EQ, mozjs_anon_sym_GT_EQ, mozjs_anon_sym_QMARK_QMARK,
      mozjs_anon_sym_instanceof, mozjs_anon_sym_PLUS_PLUS, mozjs_anon_sym_DASH_DASH,
      mozjs_anon_sym_BQUOTE]"

definition mozjs_small_run_26700 :: "nat list" where
  "mozjs_small_run_26700 =
    [25, 1827, 1, mozjs_anon_sym_LPAREN, 1829, 1, mozjs_anon_sym_LBRACK, 1831, 1,
      mozjs_anon_sym_DOT, 1845, 1, mozjs_sym_optional_chain, 1891, 1, mozjs_anon_sym_AMP_AMP,
      1893, 1, mozjs_anon_sym_PIPE_PIPE, 1895, 1, mozjs_anon_sym_GT_GT, 1899, 1,
      mozjs_anon_sym_AMP, 1901, 1, mozjs_anon_sym_CARET, 1903, 1, mozjs_anon_sym_PIPE, 1907, 1,
      mozjs_anon_sym_PERCENT, 1909, 1, mozjs_anon_sym_STAR_STAR, 1917, 1,
      mozjs_anon_sym_QMARK_QMARK, 1919, 1, mozjs_sym__ternary_qmark, 804, 1, mozjs_sym_arguments,
      5, 2, mozjs_sym_html_comment, mozjs_sym_comment, 1849, 2, mozjs_anon_sym_PLUS_PLUS,
      mozjs_anon_sym_DASH_DASH, 1887, 2, mozjs_anon_sym_STAR, mozjs_anon_sym_SLASH, 1897, 2,
      mozjs_anon_sym_GT_GT_GT, mozjs_anon_sym_LT_LT, 1905, 2, mozjs_anon_sym_PLUS,
      mozjs_anon_sym_DASH, 1913, 2, mozjs_anon_sym_EQ_EQ, mozjs_anon_sym_BANG_EQ, 1915, 2,
      mozjs_anon_sym_EQ_EQ_EQ, mozjs_anon_sym_BANG_EQ_EQ, 1889, 3, mozjs_anon_sym_in,
      mozjs_anon_sym_LT, mozjs_anon_sym_GT, 1911, 3, mozjs_anon_sym_LT_EQ, mozjs_anon_sym_GT_EQ,
      mozjs_anon_sym_instanceof, 1839, 5, mozjs_sym__automatic_semicolon, mozjs_anon_sym_COMMA,
      mozjs_anon_sym_RBRACE, mozjs_anon_sym_SEMI, mozjs_anon_sym_BQUOTE]"

definition mozjs_small_run_26791 :: "nat list" where
  "mozjs_small_run_26791 =
    [3, 5, 2, mozjs_sym_html_comment, mozjs_sym_comment, 1665, 12, mozjs_anon_sym_STAR,
      mozjs_anon_sym_in, mozjs_anon_sym_LT, mozjs_anon_sym_GT, mozjs_anon_sym_GT_GT,
      mozjs_anon_sym_AMP, mozjs_anon_sym_PIPE, mozjs_anon_sym_PLUS, mozjs_anon_sym_DASH,
      mozjs_anon_sym_SLASH, mozjs_anon_sym_EQ_EQ, mozjs_anon_sym_BANG_EQ, 1667, 26,
      mozjs_sym__automatic_semicolon, mozjs_sym__ternary_qmark, mozjs_anon_sym_COMMA,
      mozjs_anon_sym_RBRACE, mozjs_anon_sym_of, mozjs_anon_sym_LPAREN, mozjs_anon_sym_SEMI,
      mozjs_anon_sym_LBRACK, mozjs_anon_sym_DOT, mozjs_sym_optional_chain,
      mozjs_anon_sym_AMP_AMP, mozjs_anon_sym_PIPE_PIPE, mozjs_anon_sym_GT_GT_GT,
      mozjs_anon_sym_LT_LT, mozjs_anon_sym_CARET, mozjs_anon_sym_PERCENT,
      mozjs_anon_sym_STAR_STAR, mozjs_anon_sym_LT_EQ, mozjs_anon_sym_EQ_EQ_EQ,
      mozjs_anon_sym_BANG_EQ_EQ, mozjs_anon_sym_GT_EQ, mozjs_anon_sym_QMARK_QMARK,
      mozjs_anon_sym_instanceof, mozjs_anon_sym_PLUS_PLUS, mozjs_anon_sym_DASH_DASH,
      mozjs_anon_sym_BQUOTE]"

definition mozjs_small_run_26838 :: "nat list" where
  "mozjs_small_run_26838 =
    [4, 1552, 1, mozjs_anon_sym_EQ, 5, 2, mozjs_sym_html_comment, mozjs_sym_comment, 1435, 12,
      mozjs_anon_sym_STAR, mozjs_anon_sym_in, mozjs_anon_sym_LT, mozjs_anon_sym_GT,
      mozjs_anon_sym_GT_GT, mozjs_anon_sym_AMP, mozjs_anon_sym_PIPE, mozjs_anon_sym_PLUS,
      mozjs_anon_sym_DASH, mozjs_anon_sym_SLASH, mozjs_anon_sym_EQ_EQ, mozjs_anon_sym_BANG_EQ,
      1437, 25, mozjs_sym__automatic_semicolon, mozjs_sym__ternary_qmark, mozjs_anon_sym_COMMA,
      mozjs_anon_sym_of, mozjs_anon_sym_LPAREN, mozjs_anon_sym_SEMI, mozjs_anon_sym_LBRACK,
      mozjs_anon_sym_DOT, mozjs_sym_optional_chain, mozjs_anon_sym_AMP_AMP,
      mozjs_anon_sym_PIPE_PIPE, mozjs_anon_sym_GT_GT_GT, mozjs_anon_sym_LT_LT,
      mozjs_anon_sym_CARET, mozjs_anon_sym_PERCENT, mozjs_anon_sym_STAR_STAR,
      mozjs_anon_sym_LT_EQ, mozjs_anon_sym_EQ_EQ_EQ, mozjs_anon_sym_BANG_EQ_EQ,
      mozjs_anon_sym_GT_EQ, mozjs_anon_sym_QMARK_QMARK, mozjs_anon_sym_instanceof,
      mozjs_anon_sym_PLUS_PLUS, mozjs_anon_sym_DASH_DASH, mozjs_anon_sym_BQUOTE]"

definition mozjs_small_run_26887 :: "nat list" where
  "mozjs_small_run_26887 =
    [3, 5, 2, mozjs_sym_html_comment, mozjs_sym_comment, 1754, 12, mozjs_anon_sym_STAR,
      mozjs_anon_sym_in, mozjs_anon_sym_LT, mozjs_anon_sym_GT, mozjs_anon_sym_GT_GT,
      mozjs_anon_sym_AMP, mozjs_anon_sym_PIPE, mozjs_anon_sym_PLUS, mozjs_anon_sym_DASH,
      mozjs_anon_sym_SLASH, mozjs_anon_sym_EQ_EQ, mozjs_anon_sym_BANG_EQ, 1756, 26,
      mozjs_sym__automatic_semicolon, mozjs_sym__ternary_qmark, mozjs_anon_sym_COMMA,
      mozjs_anon_sym_RBRACE, mozjs_anon_sym_of, mozjs_anon_sym_LPAREN, mozjs_anon_sym_SEMI,
      mozjs_anon_sym_LBRACK, mozjs_anon_sym_DOT, mozjs_sym_optional_chain,
      mozjs_anon_sym_AMP_AMP, mozjs_anon_sym_PIPE_PIPE, mozjs_anon_sym_GT_GT_GT,
      mozjs_anon_sym_LT_LT, mozjs_anon_sym_CARET, mozjs_anon_sym_PERCENT,
      mozjs_anon_sym_STAR_STAR, mozjs_anon_sym_LT_EQ, mozjs_anon_sym_EQ_EQ_EQ,
      mozjs_anon_sym_BANG_EQ_EQ, mozjs_anon_sym_GT_EQ, mozjs_anon_sym_QMARK_QMARK,
      mozjs_anon_sym_instanceof, mozjs_anon_sym_PLUS_PLUS, mozjs_anon_sym_DASH_DASH,
      mozjs_anon_sym_BQUOTE]"

definition mozjs_small_run_26934 :: "nat list" where
  "mozjs_small_run_26934 =
    [3, 5, 2, mozjs_sym_html_comment, mozjs_sym_comment, 1783, 12, mozjs_anon_sym_STAR,
      mozjs_anon_sym_in, mozjs_anon_sym_LT, mozjs_anon_sym_GT, mozjs_anon_sym_GT_GT,
      mozjs_anon_sym_AMP, mozjs_anon_sym_PIPE, mozjs_anon_sym_PLUS, mozjs_anon_sym_DASH,
      mozjs_anon_sym_SLASH, mozjs_anon_sym_EQ_EQ, mozjs_anon_sym_BANG_EQ, 1785, 26,
      mozjs_sym__automatic_semicolon, mozjs_sym__ternary_qmark, mozjs_anon_sym_COMMA,
      mozjs_anon_sym_RBRACE, mozjs_anon_sym_of, mozjs_anon_sym_LPAREN, mozjs_anon_sym_SEMI,
      mozjs_anon_sym_LBRACK, mozjs_anon_sym_DOT, mozjs_sym_optional_chain,
      mozjs_anon_sym_AMP_AMP, mozjs_anon_sym_PIPE_PIPE, mozjs_anon_sym_GT_GT_GT,
      mozjs_anon_sym_LT_LT, mozjs_anon_sym_CARET, mozjs_anon_sym_PERCENT,
      mozjs_anon_sym_STAR_STAR, mozjs_anon_sym_LT_EQ, mozjs_anon_sym_EQ_EQ_EQ,
      mozjs_anon_sym_BANG_EQ_EQ, mozjs_anon_sym_GT_EQ, mozjs_anon_sym_QMARK_QMARK,
      mozjs_anon_sym_instanceof, mozjs_anon_sym_PLUS_PLUS, mozjs_anon_sym_DASH_DASH,
      mozjs_anon_sym_BQUOTE]"

definition mozjs_small_run_26981 :: "nat list" where
  "mozjs_small_run_26981 =
    [3, 5, 2, mozjs_sym_html_comment, mozjs_sym_comment, 1762, 12, mozjs_anon_sym_STAR,
      mozjs_anon_sym_in, mozjs_anon_sym_LT, mozjs_anon_sym_GT, mozjs_anon_sym_GT_GT,
      mozjs_anon_sym_AMP, mozjs_anon_sym_PIPE, mozjs_anon_sym_PLUS, mozjs_anon_sym_DASH,
      mozjs_anon_sym_SLASH, mozjs_anon_sym_EQ_EQ, mozjs_anon_sym_BANG_EQ, 1764, 26,
      mozjs_sym__automatic_semicolon, mozjs_sym__ternary_qmark, mozjs_anon_sym_COMMA,
      mozjs_anon_sym_RBRACE, mozjs_anon_sym_of, mozjs_anon_sym_LPAREN, mozjs_anon_sym_SEMI,
      mozjs_anon_sym_LBRACK, mozjs_anon_sym_DOT, mozjs_sym_optional_chain,
      mozjs_anon_sym_AMP_AMP, mozjs_anon_sym_PIPE_PIPE, mozjs_anon_sym_GT_GT_GT,
      mozjs_anon_sym_LT_LT, mozjs_anon_sym_CARET, mozjs_anon_sym_PERCENT,
      mozjs_anon_sym_STAR_STAR, mozjs_anon_sym_LT_EQ, mozjs_anon_sym_EQ_EQ_EQ,
      mozjs_anon_sym_BANG_EQ_EQ, mozjs_anon_sym_GT_EQ, mozjs_anon_sym_QMARK_QMARK,
      mozjs_anon_sym_instanceof, mozjs_anon_sym_PLUS_PLUS, mozjs_anon_sym_DASH_DASH,
      mozjs_anon_sym_BQUOTE]"

definition mozjs_small_run_27028 :: "nat list" where
  "mozjs_small_run_27028 =
    [5, 797, 1, mozjs_sym__automatic_semicolon, 5, 2, mozjs_sym_html_comment, mozjs_sym_comment,
      789, 2, mozjs_anon_sym_else, mozjs_anon_sym_while, 793, 12, mozjs_anon_sym_STAR,
      mozjs_anon_sym_in, mozjs_anon_sym_LT, mozjs_anon_sym_GT, mozjs_anon_sym_GT_GT,
      mozjs_anon_sym_AMP, mozjs_anon_sym_PIPE, mozjs_anon_sym_PLUS, mozjs_anon_sym_DASH,
      mozjs_anon_sym_SLASH, mozjs_anon_sym_EQ_EQ, mozjs_anon_sym_BANG_EQ, 795, 23,
      mozjs_sym__ternary_qmark, mozjs_anon_sym_COMMA, mozjs_anon_sym_LPAREN, mozjs_anon_sym_SEMI,
      mozjs_anon_sym_LBRACK, mozjs_anon_sym_DOT, mozjs_sym_optional_chain,
      mozjs_anon_sym_AMP_AMP, mozjs_anon_sym_PIPE_PIPE, mozjs_anon_sym_GT_GT_GT,
      mozjs_anon_sym_LT_LT, mozjs_anon_sym_CARET, mozjs_anon_sym_PERCENT,
      mozjs_anon_sym_STAR_STAR, mozjs_anon_sym_LT_EQ, mozjs_anon_sym_EQ_EQ_EQ,
      mozjs_anon_sym_BANG_EQ_EQ, mozjs_anon_sym_GT_EQ, mozjs_anon_sym_QMARK_QMARK,
      mozjs_anon_sym_instanceof, mozjs_anon_sym_PLUS_PLUS, mozjs_anon_sym_DASH_DASH,
      mozjs_anon_sym_BQUOTE]"

definition mozjs_small_run_27079 :: "nat list" where
  "mozjs_small_run_27079 =
    [3, 5, 2, mozjs_sym_html_comment, mozjs_sym_comment, 1608, 12, mozjs_anon_sym_STAR,
      mozjs_anon_sym_in, mozjs_anon_sym_LT, mozjs_anon_sym_GT, mozjs_anon_sym_GT_GT,
      mozjs_anon_sym_AMP, mozjs_anon_sym_PIPE, mozjs_anon_sym_PLUS, mozjs_anon_sym_DASH,
      mozjs_anon_sym_SLASH, mozjs_anon_sym_EQ_EQ, mozjs_anon_sym_BANG_EQ, 1610, 26,
      mozjs_sym__automatic_semicolon, mozjs_sym__ternary_qmark, mozjs_anon_sym_COMMA,
      mozjs_anon_sym_RBRACE, mozjs_anon_sym_of, mozjs_anon_sym_LPAREN, mozjs_anon_sym_SEMI,
      mozjs_anon_sym_LBRACK, mozjs_anon_sym_DOT, mozjs_sym_optional_chain,
      mozjs_anon_sym_AMP_AMP, mozjs_anon_sym_PIPE_PIPE, mozjs_anon_sym_GT_GT_GT,
      mozjs_anon_sym_LT_LT, mozjs_anon_sym_CARET, mozjs_anon_sym_PERCENT,
      mozjs_anon_sym_STAR_STAR, mozjs_anon_sym_LT_EQ, mozjs_anon_sym_EQ_EQ_EQ,
      mozjs_anon_sym_BANG_EQ_EQ, mozjs_anon_sym_GT_EQ, mozjs_anon_sym_QMARK_QMARK,
      mozjs_anon_sym_instanceof, mozjs_anon_sym_PLUS_PLUS, mozjs_anon_sym_DASH_DASH,
      mozjs_anon_sym_BQUOTE]"

definition mozjs_small_run_27126 :: "nat list" where
  "mozjs_small_run_27126 =
    [3, 5, 2, mozjs_sym_html_comment, mozjs_sym_comment, 1616, 12, mozjs_anon_sym_STAR,
      mozjs_anon_sym_in, mozjs_anon_sym_LT, mozjs_anon_sym_GT, mozjs_anon_sym_GT_GT,
      mozjs_anon_sym_AMP, mozjs_anon_sym_PIPE, mozjs_anon_sym_PLUS, mozjs_anon_sym_DASH,
      mozjs_anon_sym_SLASH, mozjs_anon_sym_EQ_EQ, mozjs_anon_sym_BANG_EQ, 1618, 26,
      mozjs_sym__automatic_semicolon, mozjs_sym__ternary_qmark, mozjs_anon_sym_COMMA,
      mozjs_anon_sym_RBRACE, mozjs_anon_sym_of, mozjs_anon_sym_LPAREN, mozjs_anon_sym_SEMI,
      mozjs_anon_sym_LBRACK, mozjs_anon_sym_DOT, mozjs_sym_optional_chain,
      mozjs_anon_sym_AMP_AMP, mozjs_anon_sym_PIPE_PIPE, mozjs_anon_sym_GT_GT_GT,
      mozjs_anon_sym_LT_LT, mozjs_anon_sym_CARET, mozjs_anon_sym_PERCENT,
      mozjs_anon_sym_STAR_STAR, mozjs_anon_sym_LT_EQ, mozjs_anon_sym_EQ_EQ_EQ,
      mozjs_anon_sym_BANG_EQ_EQ, mozjs_anon_sym_GT_EQ, mozjs_anon_sym_QMARK_QMARK,
      mozjs_anon_sym_instanceof, mozjs_anon_sym_PLUS_PLUS, mozjs_anon_sym_DASH_DASH,
      mozjs_anon_sym_BQUOTE]"

definition mozjs_small_run_27173 :: "nat list" where
  "mozjs_small_run_27173 =
    [3, 5, 2, mozjs_sym_html_comment, mozjs_sym_comment, 1620, 12, mozjs_anon_sym_STAR,
      mozjs_anon_sym_in, mozjs_anon_sym_LT, mozjs_anon_sym_GT, mozjs_anon_sym_GT_GT,
      mozjs_anon_sym_AMP, mozjs_anon_sym_PIPE, mozjs_anon_sym_PLUS, mozjs_anon_sym_DASH,
      mozjs_anon_sym_SLASH, mozjs_anon_sym_EQ_EQ, mozjs_anon_sym_BANG_EQ, 1622, 26,
      mozjs_sym__automatic_semicolon, mozjs_sym__ternary_qmark, mozjs_anon_sym_COMMA,
      mozjs_anon_sym_RBRACE, mozjs_anon_sym_of, mozjs_anon_sym_LPAREN, mozjs_anon_sym_SEMI,
      mozjs_anon_sym_LBRACK, mozjs_anon_sym_DOT, mozjs_sym_optional_chain,
      mozjs_anon_sym_AMP_AMP, mozjs_anon_sym_PIPE_PIPE, mozjs_anon_sym_GT_GT_GT,
      mozjs_anon_sym_LT_LT, mozjs_anon_sym_CARET, mozjs_anon_sym_PERCENT,
      mozjs_anon_sym_STAR_STAR, mozjs_anon_sym_LT_EQ, mozjs_anon_sym_EQ_EQ_EQ,
      mozjs_anon_sym_BANG_EQ_EQ, mozjs_anon_sym_GT_EQ, mozjs_anon_sym_QMARK_QMARK,
      mozjs_anon_sym_instanceof, mozjs_anon_sym_PLUS_PLUS, mozjs_anon_sym_DASH_DASH,
      mozjs_anon_sym_BQUOTE]"

definition mozjs_small_run_27220 :: "nat list" where
  "mozjs_small_run_27220 =
    [3, 5, 2, mozjs_sym_html_comment, mozjs_sym_comment, 1750, 12, mozjs_anon_sym_STAR,
      mozjs_anon_sym_in, mozjs_anon_sym_LT, mozjs_anon_sym_GT, mozjs_anon_sym_GT_GT,
      mozjs_anon_sym_AMP, mozjs_anon_sym_PIPE, mozjs_anon_sym_PLUS, mozjs_anon_sym_DASH,
      mozjs_anon_sym_SLASH, mozjs_anon_sym_EQ_EQ, mozjs_anon_sym_BANG_EQ, 1752, 26,
      mozjs_sym__automatic_semicolon, mozjs_sym__ternary_qmark, mozjs_anon_sym_COMMA,
      mozjs_anon_sym_RBRACE, mozjs_anon_sym_of, mozjs_anon_sym_LPAREN, mozjs_anon_sym_SEMI,
      mozjs_anon_sym_LBRACK, mozjs_anon_sym_DOT, mozjs_sym_optional_chain,
      mozjs_anon_sym_AMP_AMP, mozjs_anon_sym_PIPE_PIPE, mozjs_anon_sym_GT_GT_GT,
      mozjs_anon_sym_LT_LT, mozjs_anon_sym_CARET, mozjs_anon_sym_PERCENT,
      mozjs_anon_sym_STAR_STAR, mozjs_anon_sym_LT_EQ, mozjs_anon_sym_EQ_EQ_EQ,
      mozjs_anon_sym_BANG_EQ_EQ, mozjs_anon_sym_GT_EQ, mozjs_anon_sym_QMARK_QMARK,
      mozjs_anon_sym_instanceof, mozjs_anon_sym_PLUS_PLUS, mozjs_anon_sym_DASH_DASH,
      mozjs_anon_sym_BQUOTE]"

definition mozjs_small_run_27267 :: "nat list" where
  "mozjs_small_run_27267 =
    [3, 5, 2, mozjs_sym_html_comment, mozjs_sym_comment, 1758, 12, mozjs_anon_sym_STAR,
      mozjs_anon_sym_in, mozjs_anon_sym_LT, mozjs_anon_sym_GT, mozjs_anon_sym_GT_GT,
      mozjs_anon_sym_AMP, mozjs_anon_sym_PIPE, mozjs_anon_sym_PLUS, mozjs_anon_sym_DASH,
      mozjs_anon_sym_SLASH, mozjs_anon_sym_EQ_EQ, mozjs_anon_sym_BANG_EQ, 1760, 26,
      mozjs_sym__automatic_semicolon, mozjs_sym__ternary_qmark, mozjs_anon_sym_COMMA,
      mozjs_anon_sym_RBRACE, mozjs_anon_sym_of, mozjs_anon_sym_LPAREN, mozjs_anon_sym_SEMI,
      mozjs_anon_sym_LBRACK, mozjs_anon_sym_DOT, mozjs_sym_optional_chain,
      mozjs_anon_sym_AMP_AMP, mozjs_anon_sym_PIPE_PIPE, mozjs_anon_sym_GT_GT_GT,
      mozjs_anon_sym_LT_LT, mozjs_anon_sym_CARET, mozjs_anon_sym_PERCENT,
      mozjs_anon_sym_STAR_STAR, mozjs_anon_sym_LT_EQ, mozjs_anon_sym_EQ_EQ_EQ,
      mozjs_anon_sym_BANG_EQ_EQ, mozjs_anon_sym_GT_EQ, mozjs_anon_sym_QMARK_QMARK,
      mozjs_anon_sym_instanceof, mozjs_anon_sym_PLUS_PLUS, mozjs_anon_sym_DASH_DASH,
      mozjs_anon_sym_BQUOTE]"

definition mozjs_small_run_27314 :: "nat list" where
  "mozjs_small_run_27314 =
    [25, 1827, 1, mozjs_anon_sym_LPAREN, 1829, 1, mozjs_anon_sym_LBRACK, 1831, 1,
      mozjs_anon_sym_DOT, 1845, 1, mozjs_sym_optional_chain, 1891, 1, mozjs_anon_sym_AMP_AMP,
      1893, 1, mozjs_anon_sym_PIPE_PIPE, 1895, 1, mozjs_anon_sym_GT_GT, 1899, 1,
      mozjs_anon_sym_AMP, 1901, 1, mozjs_anon_sym_CARET, 1903, 1, mozjs_anon_sym_PIPE, 1907, 1,
      mozjs_anon_sym_PERCENT, 1909, 1, mozjs_anon_sym_STAR_STAR, 1917, 1,
      mozjs_anon_sym_QMARK_QMARK, 1919, 1, mozjs_sym__ternary_qmark, 804, 1, mozjs_sym_arguments,
      5, 2, mozjs_sym_html_comment, mozjs_sym_comment, 1849, 2, mozjs_anon_sym_PLUS_PLUS,
      mozjs_anon_sym_DASH_DASH, 1887, 2, mozjs_anon_sym_STAR, mozjs_anon_sym_SLASH, 1897, 2,
      mozjs_anon_sym_GT_GT_GT, mozjs_anon_sym_LT_LT, 1905, 2, mozjs_anon_sym_PLUS,
      mozjs_anon_sym_DASH, 1913, 2, mozjs_anon_sym_EQ_EQ, mozjs_anon_sym_BANG_EQ, 1915, 2,
      mozjs_anon_sym_EQ_EQ_EQ, mozjs_anon_sym_BANG_EQ_EQ, 1889, 3, mozjs_anon_sym_in,
      mozjs_anon_sym_LT, mozjs_anon_sym_GT, 1911, 3, mozjs_anon_sym_LT_EQ, mozjs_anon_sym_GT_EQ,
      mozjs_anon_sym_instanceof, 1752, 5, mozjs_sym__automatic_semicolon, mozjs_anon_sym_COMMA,
      mozjs_anon_sym_RBRACE, mozjs_anon_sym_SEMI, mozjs_anon_sym_BQUOTE]"

definition mozjs_small_run_27405 :: "nat list" where
  "mozjs_small_run_27405 =
    [3, 5, 2, mozjs_sym_html_comment, mozjs_sym_comment, 1628, 12, mozjs_anon_sym_STAR,
      mozjs_anon_sym_in, mozjs_anon_sym_LT, mozjs_anon_sym_GT, mozjs_anon_sym_GT_GT,
      mozjs_anon_sym_AMP, mozjs_anon_sym_PIPE, mozjs_anon_sym_PLUS, mozjs_anon_sym_DASH,
      mozjs_anon_sym_SLASH, mozjs_anon_sym_EQ_EQ, mozjs_anon_sym_BANG_EQ, 1630, 26,
      mozjs_sym__automatic_semicolon, mozjs_sym__ternary_qmark, mozjs_anon_sym_COMMA,
      mozjs_anon_sym_RBRACE, mozjs_anon_sym_of, mozjs_anon_sym_LPAREN, mozjs_anon_sym_SEMI,
      mozjs_anon_sym_LBRACK, mozjs_anon_sym_DOT, mozjs_sym_optional_chain,
      mozjs_anon_sym_AMP_AMP, mozjs_anon_sym_PIPE_PIPE, mozjs_anon_sym_GT_GT_GT,
      mozjs_anon_sym_LT_LT, mozjs_anon_sym_CARET, mozjs_anon_sym_PERCENT,
      mozjs_anon_sym_STAR_STAR, mozjs_anon_sym_LT_EQ, mozjs_anon_sym_EQ_EQ_EQ,
      mozjs_anon_sym_BANG_EQ_EQ, mozjs_anon_sym_GT_EQ, mozjs_anon_sym_QMARK_QMARK,
      mozjs_anon_sym_instanceof, mozjs_anon_sym_PLUS_PLUS, mozjs_anon_sym_DASH_DASH,
      mozjs_anon_sym_BQUOTE]"

definition mozjs_small_run_27452 :: "nat list" where
  "mozjs_small_run_27452 =
    [5, 807, 1, mozjs_sym__automatic_semicolon, 5, 2, mozjs_sym_html_comment, mozjs_sym_comment,
      799, 2, mozjs_anon_sym_else, mozjs_anon_sym_while, 803, 12, mozjs_anon_sym_STAR,
      mozjs_anon_sym_in, mozjs_anon_sym_LT, mozjs_anon_sym_GT, mozjs_anon_sym_GT_GT,
      mozjs_anon_sym_AMP, mozjs_anon_sym_PIPE, mozjs_anon_sym_PLUS, mozjs_anon_sym_DASH,
      mozjs_anon_sym_SLASH, mozjs_anon_sym_EQ_EQ, mozjs_anon_sym_BANG_EQ, 805, 23,
      mozjs_sym__ternary_qmark, mozjs_anon_sym_COMMA, mozjs_anon_sym_LPAREN, mozjs_anon_sym_SEMI,
      mozjs_anon_sym_LBRACK, mozjs_anon_sym_DOT, mozjs_sym_optional_chain,
      mozjs_anon_sym_AMP_AMP, mozjs_anon_sym_PIPE_PIPE, mozjs_anon_sym_GT_GT_GT,
      mozjs_anon_sym_LT_LT, mozjs_anon_sym_CARET, mozjs_anon_sym_PERCENT,
      mozjs_anon_sym_STAR_STAR, mozjs_anon_sym_LT_EQ, mozjs_anon_sym_EQ_EQ_EQ,
      mozjs_anon_sym_BANG_EQ_EQ, mozjs_anon_sym_GT_EQ, mozjs_anon_sym_QMARK_QMARK,
      mozjs_anon_sym_instanceof, mozjs_anon_sym_PLUS_PLUS, mozjs_anon_sym_DASH_DASH,
      mozjs_anon_sym_BQUOTE]"

definition mozjs_small_run_27503 :: "nat list" where
  "mozjs_small_run_27503 =
    [3, 5, 2, mozjs_sym_html_comment, mozjs_sym_comment, 1641, 12, mozjs_anon_sym_STAR,
      mozjs_anon_sym_in, mozjs_anon_sym_LT, mozjs_anon_sym_GT, mozjs_anon_sym_GT_GT,
      mozjs_anon_sym_AMP, mozjs_anon_sym_PIPE, mozjs_anon_sym_PLUS, mozjs_anon_sym_DASH,
      mozjs_anon_sym_SLASH, mozjs_anon_sym_EQ_EQ, mozjs_anon_sym_BANG_EQ, 1643, 26,
      mozjs_sym__automatic_semicolon, mozjs_sym__ternary_qmark, mozjs_anon_sym_COMMA,
      mozjs_anon_sym_RBRACE, mozjs_anon_sym_of, mozjs_anon_sym_LPAREN, mozjs_anon_sym_SEMI,
      mozjs_anon_sym_LBRACK, mozjs_anon_sym_DOT, mozjs_sym_optional_chain,
      mozjs_anon_sym_AMP_AMP, mozjs_anon_sym_PIPE_PIPE, mozjs_anon_sym_GT_GT_GT,
      mozjs_anon_sym_LT_LT, mozjs_anon_sym_CARET, mozjs_anon_sym_PERCENT,
      mozjs_anon_sym_STAR_STAR, mozjs_anon_sym_LT_EQ, mozjs_anon_sym_EQ_EQ_EQ,
      mozjs_anon_sym_BANG_EQ_EQ, mozjs_anon_sym_GT_EQ, mozjs_anon_sym_QMARK_QMARK,
      mozjs_anon_sym_instanceof, mozjs_anon_sym_PLUS_PLUS, mozjs_anon_sym_DASH_DASH,
      mozjs_anon_sym_BQUOTE]"

definition mozjs_small_run_27550 :: "nat list" where
  "mozjs_small_run_27550 =
    [25, 1827, 1, mozjs_anon_sym_LPAREN, 1829, 1, mozjs_anon_sym_LBRACK, 1831, 1,
      mozjs_anon_sym_DOT, 1845, 1, mozjs_sym_optional_chain, 1855, 1, mozjs_anon_sym_AMP_AMP,
      1857, 1, mozjs_anon_sym_PIPE_PIPE, 1859, 1, mozjs_anon_sym_GT_GT, 1863, 1,
      mozjs_anon_sym_AMP, 1865, 1, mozjs_anon_sym_CARET, 1867, 1, mozjs_anon_sym_PIPE, 1871, 1,
      mozjs_anon_sym_PERCENT, 1873, 1, mozjs_anon_sym_STAR_STAR, 1881, 1,
      mozjs_anon_sym_QMARK_QMARK, 1883, 1, mozjs_sym__ternary_qmark, 804, 1, mozjs_sym_arguments,
      5, 2, mozjs_sym_html_comment, mozjs_sym_comment, 1849, 2, mozjs_anon_sym_PLUS_PLUS,
      mozjs_anon_sym_DASH_DASH, 1851, 2, mozjs_anon_sym_STAR, mozjs_anon_sym_SLASH, 1861, 2,
      mozjs_anon_sym_GT_GT_GT, mozjs_anon_sym_LT_LT, 1869, 2, mozjs_anon_sym_PLUS,
      mozjs_anon_sym_DASH, 1877, 2, mozjs_anon_sym_EQ_EQ, mozjs_anon_sym_BANG_EQ, 1879, 2,
      mozjs_anon_sym_EQ_EQ_EQ, mozjs_anon_sym_BANG_EQ_EQ, 1853, 3, mozjs_anon_sym_in,
      mozjs_anon_sym_LT, mozjs_anon_sym_GT, 1875, 3, mozjs_anon_sym_LT_EQ, mozjs_anon_sym_GT_EQ,
      mozjs_anon_sym_instanceof, 1841, 5, mozjs_sym__automatic_semicolon, mozjs_anon_sym_COMMA,
      mozjs_anon_sym_of, mozjs_anon_sym_SEMI, mozjs_anon_sym_BQUOTE]"

definition mozjs_small_run_27641 :: "nat list" where
  "mozjs_small_run_27641 =
    [5, 777, 1, mozjs_sym__automatic_semicolon, 5, 2, mozjs_sym_html_comment, mozjs_sym_comment,
      769, 2, mozjs_anon_sym_else, mozjs_anon_sym_while, 773, 12, mozjs_anon_sym_STAR,
      mozjs_anon_sym_in, mozjs_anon_sym_LT, mozjs_anon_sym_GT, mozjs_anon_sym_GT_GT,
      mozjs_anon_sym_AMP, mozjs_anon_sym_PIPE, mozjs_anon_sym_PLUS, mozjs_anon_sym_DASH,
      mozjs_anon_sym_SLASH, mozjs_anon_sym_EQ_EQ, mozjs_anon_sym_BANG_EQ, 775, 23,
      mozjs_sym__ternary_qmark, mozjs_anon_sym_COMMA, mozjs_anon_sym_LPAREN, mozjs_anon_sym_SEMI,
      mozjs_anon_sym_LBRACK, mozjs_anon_sym_DOT, mozjs_sym_optional_chain,
      mozjs_anon_sym_AMP_AMP, mozjs_anon_sym_PIPE_PIPE, mozjs_anon_sym_GT_GT_GT,
      mozjs_anon_sym_LT_LT, mozjs_anon_sym_CARET, mozjs_anon_sym_PERCENT,
      mozjs_anon_sym_STAR_STAR, mozjs_anon_sym_LT_EQ, mozjs_anon_sym_EQ_EQ_EQ,
      mozjs_anon_sym_BANG_EQ_EQ, mozjs_anon_sym_GT_EQ, mozjs_anon_sym_QMARK_QMARK,
      mozjs_anon_sym_instanceof, mozjs_anon_sym_PLUS_PLUS, mozjs_anon_sym_DASH_DASH,
      mozjs_anon_sym_BQUOTE]"

definition mozjs_small_run_27692 :: "nat list" where
  "mozjs_small_run_27692 =
    [25, 1827, 1, mozjs_anon_sym_LPAREN, 1829, 1, mozjs_anon_sym_LBRACK, 1831, 1,
      mozjs_anon_sym_DOT, 1845, 1, mozjs_sym_optional_chain, 1855, 1, mozjs_anon_sym_AMP_AMP,
      1857, 1, mozjs_anon_sym_PIPE_PIPE, 1859, 1, mozjs_anon_sym_GT_GT, 1863, 1,
      mozjs_anon_sym_AMP, 1865, 1, mozjs_anon_sym_CARET, 1867, 1, mozjs_anon_sym_PIPE, 1871, 1,
      mozjs_anon_sym_PERCENT, 1873, 1, mozjs_anon_sym_STAR_STAR, 1881, 1,
      mozjs_anon_sym_QMARK_QMARK, 1883, 1, mozjs_sym__ternary_qmark, 804, 1, mozjs_sym_arguments,
      5, 2, mozjs_sym_html_comment, mozjs_sym_comment, 1849, 2, mozjs_anon_sym_PLUS_PLUS,
      mozjs_anon_sym_DASH_DASH, 1851, 2, mozjs_anon_sym_STAR, mozjs_anon_sym_SLASH, 1861, 2,
      mozjs_anon_sym_GT_GT_GT, mozjs_anon_sym_LT_LT, 1869, 2, mozjs_anon_sym_PLUS,
      mozjs_anon_sym_DASH, 1877, 2, mozjs_anon_sym_EQ_EQ, mozjs_anon_sym_BANG_EQ, 1879, 2,
      mozjs_anon_sym_EQ_EQ_EQ, mozjs_anon_sym_BANG_EQ_EQ, 1853, 3, mozjs_anon_sym_in,
      mozjs_anon_sym_LT, mozjs_anon_sym_GT, 1875, 3, mozjs_anon_sym_LT_EQ, mozjs_anon_sym_GT_EQ,
      mozjs_anon_sym_instanceof, 1630, 5, mozjs_sym__automatic_semicolon, mozjs_anon_sym_COMMA,
      mozjs_anon_sym_of, mozjs_anon_sym_SEMI, mozjs_anon_sym_BQUOTE]"

definition mozjs_small_run_27783 :: "nat list" where
  "mozjs_small_run_27783 =
    [4, 1540, 1, mozjs_anon_sym_EQ, 5, 2, mozjs_sym_html_comment, mozjs_sym_comment, 1435, 12,
      mozjs_anon_sym_STAR, mozjs_anon_sym_in, mozjs_anon_sym_LT, mozjs_anon_sym_GT,
      mozjs_anon_sym_GT_GT, mozjs_anon_sym_AMP, mozjs_anon_sym_PIPE, mozjs_anon_sym_PLUS,
      mozjs_anon_sym_DASH, mozjs_anon_sym_SLASH, mozjs_anon_sym_EQ_EQ, mozjs_anon_sym_BANG_EQ,
      1437, 25, mozjs_sym__automatic_semicolon, mozjs_sym__ternary_qmark, mozjs_anon_sym_COMMA,
      mozjs_anon_sym_RBRACE, mozjs_anon_sym_LPAREN, mozjs_anon_sym_SEMI, mozjs_anon_sym_LBRACK,
      mozjs_anon_sym_DOT, mozjs_sym_optional_chain, mozjs_anon_sym_AMP_AMP,
      mozjs_anon_sym_PIPE_PIPE, mozjs_anon_sym_GT_GT_GT, mozjs_anon_sym_LT_LT,
      mozjs_anon_sym_CARET, mozjs_anon_sym_PERCENT, mozjs_anon_sym_STAR_STAR,
      mozjs_anon_sym_LT_EQ, mozjs_anon_sym_EQ_EQ_EQ, mozjs_anon_sym_BANG_EQ_EQ,
      mozjs_anon_sym_GT_EQ, mozjs_anon_sym_QMARK_QMARK, mozjs_anon_sym_instanceof,
      mozjs_anon_sym_PLUS_PLUS, mozjs_anon_sym_DASH_DASH, mozjs_anon_sym_BQUOTE]"

definition mozjs_small_run_27832 :: "nat list" where
  "mozjs_small_run_27832 =
    [3, 5, 2, mozjs_sym_html_comment, mozjs_sym_comment, 1730, 12, mozjs_anon_sym_STAR,
      mozjs_anon_sym_in, mozjs_anon_sym_LT, mozjs_anon_sym_GT, mozjs_anon_sym_GT_GT,
      mozjs_anon_sym_AMP, mozjs_anon_sym_PIPE, mozjs_anon_sym_PLUS, mozjs_anon_sym_DASH,
      mozjs_anon_sym_SLASH, mozjs_anon_sym_EQ_EQ, mozjs_anon_sym_BANG_EQ, 1732, 26,
      mozjs_sym__automatic_semicolon, mozjs_sym__ternary_qmark, mozjs_anon_sym_COMMA,
      mozjs_anon_sym_RBRACE, mozjs_anon_sym_of, mozjs_anon_sym_LPAREN, mozjs_anon_sym_SEMI,
      mozjs_anon_sym_LBRACK, mozjs_anon_sym_DOT, mozjs_sym_optional_chain,
      mozjs_anon_sym_AMP_AMP, mozjs_anon_sym_PIPE_PIPE, mozjs_anon_sym_GT_GT_GT,
      mozjs_anon_sym_LT_LT, mozjs_anon_sym_CARET, mozjs_anon_sym_PERCENT,
      mozjs_anon_sym_STAR_STAR, mozjs_anon_sym_LT_EQ, mozjs_anon_sym_EQ_EQ_EQ,
      mozjs_anon_sym_BANG_EQ_EQ, mozjs_anon_sym_GT_EQ, mozjs_anon_sym_QMARK_QMARK,
      mozjs_anon_sym_instanceof, mozjs_anon_sym_PLUS_PLUS, mozjs_anon_sym_DASH_DASH,
      mozjs_anon_sym_BQUOTE]"

definition mozjs_small_run_27879 :: "nat list" where
  "mozjs_small_run_27879 =
    [6, 1639, 1, mozjs_anon_sym_EQ, 1923, 1, mozjs_anon_sym_of, 1927, 1, mozjs_anon_sym_in, 5, 2,
      mozjs_sym_html_comment, mozjs_sym_comment, 1632, 11, mozjs_anon_sym_STAR,
      mozjs_anon_sym_LT, mozjs_anon_sym_GT, mozjs_anon_sym_GT_GT, mozjs_anon_sym_AMP,
      mozjs_anon_sym_PIPE, mozjs_anon_sym_PLUS, mozjs_anon_sym_DASH, mozjs_anon_sym_SLASH,
      mozjs_anon_sym_EQ_EQ, mozjs_anon_sym_BANG_EQ, 1634, 23, mozjs_sym__ternary_qmark,
      mozjs_anon_sym_COMMA, mozjs_anon_sym_LPAREN, mozjs_anon_sym_SEMI, mozjs_anon_sym_LBRACK,
      mozjs_anon_sym_DOT, mozjs_sym_optional_chain, mozjs_anon_sym_AMP_AMP,
      mozjs_anon_sym_PIPE_PIPE, mozjs_anon_sym_GT_GT_GT, mozjs_anon_sym_LT_LT,
      mozjs_anon_sym_CARET, mozjs_anon_sym_PERCENT, mozjs_anon_sym_STAR_STAR,
      mozjs_anon_sym_LT_EQ, mozjs_anon_sym_EQ_EQ_EQ, mozjs_anon_sym_BANG_EQ_EQ,
      mozjs_anon_sym_GT_EQ, mozjs_anon_sym_QMARK_QMARK, mozjs_anon_sym_instanceof,
      mozjs_anon_sym_PLUS_PLUS, mozjs_anon_sym_DASH_DASH, mozjs_anon_sym_BQUOTE]"

definition mozjs_small_run_27931 :: "nat list" where
  "mozjs_small_run_27931 =
    [5, 1930, 1, mozjs_anon_sym_LPAREN, 1933, 1, mozjs_anon_sym_COLON, 5, 2,
      mozjs_sym_html_comment, mozjs_sym_comment, 1435, 12, mozjs_anon_sym_STAR,
      mozjs_anon_sym_in, mozjs_anon_sym_LT, mozjs_anon_sym_GT, mozjs_anon_sym_GT_GT,
      mozjs_anon_sym_AMP, mozjs_anon_sym_PIPE, mozjs_anon_sym_PLUS, mozjs_anon_sym_DASH,
      mozjs_anon_sym_SLASH, mozjs_anon_sym_EQ_EQ, mozjs_anon_sym_BANG_EQ, 1437, 23,
      mozjs_sym__automatic_semicolon, mozjs_sym__ternary_qmark, mozjs_anon_sym_COMMA,
      mozjs_anon_sym_SEMI, mozjs_anon_sym_LBRACK, mozjs_anon_sym_DOT, mozjs_sym_optional_chain,
      mozjs_anon_sym_AMP_AMP, mozjs_anon_sym_PIPE_PIPE, mozjs_anon_sym_GT_GT_GT,
      mozjs_anon_sym_LT_LT, mozjs_anon_sym_CARET, mozjs_anon_sym_PERCENT,
      mozjs_anon_sym_STAR_STAR, mozjs_anon_sym_LT_EQ, mozjs_anon_sym_EQ_EQ_EQ,
      mozjs_anon_sym_BANG_EQ_EQ, mozjs_anon_sym_GT_EQ, mozjs_anon_sym_QMARK_QMARK,
      mozjs_anon_sym_instanceof, mozjs_anon_sym_PLUS_PLUS, mozjs_anon_sym_DASH_DASH,
      mozjs_anon_sym_BQUOTE]"

definition mozjs_small_run_27981 :: "nat list" where
  "mozjs_small_run_27981 =
    [6, 725, 1, mozjs_anon_sym_EQ, 1925, 1, mozjs_anon_sym_of, 1935, 1, mozjs_anon_sym_in, 5, 2,
      mozjs_sym_html_comment, mozjs_sym_comment, 721, 11, mozjs_anon_sym_STAR, mozjs_anon_sym_LT,
      mozjs_anon_sym_GT, mozjs_anon_sym_GT_GT, mozjs_anon_sym_AMP, mozjs_anon_sym_PIPE,
      mozjs_anon_sym_PLUS, mozjs_anon_sym_DASH, mozjs_anon_sym_SLASH, mozjs_anon_sym_EQ_EQ,
      mozjs_anon_sym_BANG_EQ, 723, 23, mozjs_sym__ternary_qmark, mozjs_anon_sym_COMMA,
      mozjs_anon_sym_LPAREN, mozjs_anon_sym_SEMI, mozjs_anon_sym_LBRACK, mozjs_anon_sym_DOT,
      mozjs_sym_optional_chain, mozjs_anon_sym_AMP_AMP, mozjs_anon_sym_PIPE_PIPE,
      mozjs_anon_sym_GT_GT_GT, mozjs_anon_sym_LT_LT, mozjs_anon_sym_CARET,
      mozjs_anon_sym_PERCENT, mozjs_anon_sym_STAR_STAR, mozjs_anon_sym_LT_EQ,
      mozjs_anon_sym_EQ_EQ_EQ, mozjs_anon_sym_BANG_EQ_EQ, mozjs_anon_sym_GT_EQ,
      mozjs_anon_sym_QMARK_QMARK, mozjs_anon_sym_instanceof, mozjs_anon_sym_PLUS_PLUS,
      mozjs_anon_sym_DASH_DASH, mozjs_anon_sym_BQUOTE]"

definition mozjs_small_run_28033 :: "nat list" where
  "mozjs_small_run_28033 =
    [25, 1578, 1, mozjs_anon_sym_LPAREN, 1580, 1, mozjs_anon_sym_LBRACK, 1582, 1,
      mozjs_anon_sym_DOT, 1594, 1, mozjs_sym_optional_chain, 1793, 1, mozjs_anon_sym_GT_GT, 1801,
      1, mozjs_anon_sym_PERCENT, 1803, 1, mozjs_anon_sym_STAR_STAR, 1809, 1,
      mozjs_anon_sym_AMP_AMP, 1811, 1, mozjs_anon_sym_PIPE_PIPE, 1813, 1, mozjs_anon_sym_AMP,
      1815, 1, mozjs_anon_sym_CARET, 1817, 1, mozjs_anon_sym_PIPE, 1823, 1,
      mozjs_anon_sym_QMARK_QMARK, 1825, 1, mozjs_sym__ternary_qmark, 639, 1, mozjs_sym_arguments,
      5, 2, mozjs_sym_html_comment, mozjs_sym_comment, 1600, 2, mozjs_anon_sym_PLUS_PLUS,
      mozjs_anon_sym_DASH_DASH, 1787, 2, mozjs_anon_sym_STAR, mozjs_anon_sym_SLASH, 1795, 2,
      mozjs_anon_sym_GT_GT_GT, mozjs_anon_sym_LT_LT, 1799, 2, mozjs_anon_sym_PLUS,
      mozjs_anon_sym_DASH, 1819, 2, mozjs_anon_sym_EQ_EQ, mozjs_anon_sym_BANG_EQ, 1821, 2,
      mozjs_anon_sym_EQ_EQ_EQ, mozjs_anon_sym_BANG_EQ_EQ, 1791, 3, mozjs_anon_sym_in,
      mozjs_anon_sym_LT, mozjs_anon_sym_GT, 1805, 3, mozjs_anon_sym_LT_EQ, mozjs_anon_sym_GT_EQ,
      mozjs_anon_sym_instanceof, 1938, 4, mozjs_anon_sym_COMMA, mozjs_anon_sym_RBRACE,
      mozjs_anon_sym_RPAREN, mozjs_anon_sym_RBRACK]"

definition mozjs_small_run_28123 :: "nat list" where
  "mozjs_small_run_28123 =
    [27, 1827, 1, mozjs_anon_sym_LPAREN, 1829, 1, mozjs_anon_sym_LBRACK, 1831, 1,
      mozjs_anon_sym_DOT, 1845, 1, mozjs_sym_optional_chain, 1891, 1, mozjs_anon_sym_AMP_AMP,
      1893, 1, mozjs_anon_sym_PIPE_PIPE, 1895, 1, mozjs_anon_sym_GT_GT, 1899, 1,
      mozjs_anon_sym_AMP, 1901, 1, mozjs_anon_sym_CARET, 1903, 1, mozjs_anon_sym_PIPE, 1907, 1,
      mozjs_anon_sym_PERCENT, 1909, 1, mozjs_anon_sym_STAR_STAR, 1917, 1,
      mozjs_anon_sym_QMARK_QMARK, 1919, 1, mozjs_sym__ternary_qmark, 1940, 1,
      mozjs_anon_sym_COMMA, 1943, 1, mozjs_anon_sym_RBRACE, 804, 1, mozjs_sym_arguments, 5, 2,
      mozjs_sym_html_comment, mozjs_sym_comment, 1837, 2, mozjs_sym__automatic_semicolon,
      mozjs_anon_sym_SEMI, 1849, 2, mozjs_anon_sym_PLUS_PLUS, mozjs_anon_sym_DASH_DASH, 1887, 2,
      mozjs_anon_sym_STAR, mozjs_anon_sym_SLASH, 1897, 2, mozjs_anon_sym_GT_GT_GT,
      mozjs_anon_sym_LT_LT, 1905, 2, mozjs_anon_sym_PLUS, mozjs_anon_sym_DASH, 1913, 2,
      mozjs_anon_sym_EQ_EQ, mozjs_anon_sym_BANG_EQ, 1915, 2, mozjs_anon_sym_EQ_EQ_EQ,
      mozjs_anon_sym_BANG_EQ_EQ, 1889, 3, mozjs_anon_sym_in, mozjs_anon_sym_LT,
      mozjs_anon_sym_GT, 1911, 3, mozjs_anon_sym_LT_EQ, mozjs_anon_sym_GT_EQ,
      mozjs_anon_sym_instanceof]"

definition mozjs_small_run_28217 :: "nat list" where
  "mozjs_small_run_28217 =
    [27, 1827, 1, mozjs_anon_sym_LPAREN, 1829, 1, mozjs_anon_sym_LBRACK, 1831, 1,
      mozjs_anon_sym_DOT, 1845, 1, mozjs_sym_optional_chain, 1891, 1, mozjs_anon_sym_AMP_AMP,
      1893, 1, mozjs_anon_sym_PIPE_PIPE, 1895, 1, mozjs_anon_sym_GT_GT, 1899, 1,
      mozjs_anon_sym_AMP, 1901, 1, mozjs_anon_sym_CARET, 1903, 1, mozjs_anon_sym_PIPE, 1907, 1,
      mozjs_anon_sym_PERCENT, 1909, 1, mozjs_anon_sym_STAR_STAR, 1917, 1,
      mozjs_anon_sym_QMARK_QMARK, 1919, 1, mozjs_sym__ternary_qmark, 1945, 1,
      mozjs_anon_sym_COMMA, 1948, 1, mozjs_anon_sym_RBRACE, 804, 1, mozjs_sym_arguments, 5, 2,
      mozjs_sym_html_comment, mozjs_sym_comment, 1837, 2, mozjs_sym__automatic_semicolon,
      mozjs_anon_sym_SEMI, 1849, 2, mozjs_anon_sym_PLUS_PLUS, mozjs_anon_sym_DASH_DASH, 1887, 2,
      mozjs_anon_sym_STAR, mozjs_anon_sym_SLASH, 1897, 2, mozjs_anon_sym_GT_GT_GT,
      mozjs_anon_sym_LT_LT, 1905, 2, mozjs_anon_sym_PLUS, mozjs_anon_sym_DASH, 1913, 2,
      mozjs_anon_sym_EQ_EQ, mozjs_anon_sym_BANG_EQ, 1915, 2, mozjs_anon_sym_EQ_EQ_EQ,
      mozjs_anon_sym_BANG_EQ_EQ, 1889, 3, mozjs_anon_sym_in, mozjs_anon_sym_LT,
      mozjs_anon_sym_GT, 1911, 3, mozjs_anon_sym_LT_EQ, mozjs_anon_sym_GT_EQ,
      mozjs_anon_sym_instanceof]"

definition mozjs_small_run_28311 :: "nat list" where
  "mozjs_small_run_28311 =
    [27, 1827, 1, mozjs_anon_sym_LPAREN, 1829, 1, mozjs_anon_sym_LBRACK, 1831, 1,
      mozjs_anon_sym_DOT, 1845, 1, mozjs_sym_optional_chain, 1891, 1, mozjs_anon_sym_AMP_AMP,
      1893, 1, mozjs_anon_sym_PIPE_PIPE, 1895, 1, mozjs_anon_sym_GT_GT, 1899, 1,
      mozjs_anon_sym_AMP, 1901, 1, mozjs_anon_sym_CARET, 1903, 1, mozjs_anon_sym_PIPE, 1907, 1,
      mozjs_anon_sym_PERCENT, 1909, 1, mozjs_anon_sym_STAR_STAR, 1917, 1,
      mozjs_anon_sym_QMARK_QMARK, 1919, 1, mozjs_sym__ternary_qmark, 1950, 1,
      mozjs_anon_sym_COMMA, 804, 1, mozjs_sym_arguments, 1330, 1,
      mozjs_aux_sym_sequence_expression_repeat1, 5, 2, mozjs_sym_html_comment, mozjs_sym_comment,
      1849, 2, mozjs_anon_sym_PLUS_PLUS, mozjs_anon_sym_DASH_DASH, 1887, 2, mozjs_anon_sym_STAR,
      mozjs_anon_sym_SLASH, 1897, 2, mozjs_anon_sym_GT_GT_GT, mozjs_anon_sym_LT_LT, 1905, 2,
      mozjs_anon_sym_PLUS, mozjs_anon_sym_DASH, 1913, 2, mozjs_anon_sym_EQ_EQ,
      mozjs_anon_sym_BANG_EQ, 1915, 2, mozjs_anon_sym_EQ_EQ_EQ, mozjs_anon_sym_BANG_EQ_EQ, 1952,
      2, mozjs_sym__automatic_semicolon, mozjs_anon_sym_SEMI, 1889, 3, mozjs_anon_sym_in,
      mozjs_anon_sym_LT, mozjs_anon_sym_GT, 1911, 3, mozjs_anon_sym_LT_EQ, mozjs_anon_sym_GT_EQ,
      mozjs_anon_sym_instanceof]"

definition mozjs_small_run_28405 :: "nat list" where
  "mozjs_small_run_28405 =
    [5, 1954, 1, mozjs_anon_sym_LPAREN, 1957, 1, mozjs_anon_sym_COLON, 5, 2,
      mozjs_sym_html_comment, mozjs_sym_comment, 1672, 12, mozjs_anon_sym_STAR,
      mozjs_anon_sym_in, mozjs_anon_sym_LT, mozjs_anon_sym_GT, mozjs_anon_sym_GT_GT,
      mozjs_anon_sym_AMP, mozjs_anon_sym_PIPE, mozjs_anon_sym_PLUS, mozjs_anon_sym_DASH,
      mozjs_anon_sym_SLASH, mozjs_anon_sym_EQ_EQ, mozjs_anon_sym_BANG_EQ, 1674, 23,
      mozjs_sym__automatic_semicolon, mozjs_sym__ternary_qmark, mozjs_anon_sym_COMMA,
      mozjs_anon_sym_SEMI, mozjs_anon_sym_LBRACK, mozjs_anon_sym_DOT, mozjs_sym_optional_chain,
      mozjs_anon_sym_AMP_AMP, mozjs_anon_sym_PIPE_PIPE, mozjs_anon_sym_GT_GT_GT,
      mozjs_anon_sym_LT_LT, mozjs_anon_sym_CARET, mozjs_anon_sym_PERCENT,
      mozjs_anon_sym_STAR_STAR, mozjs_anon_sym_LT_EQ, mozjs_anon_sym_EQ_EQ_EQ,
      mozjs_anon_sym_BANG_EQ_EQ, mozjs_anon_sym_GT_EQ, mozjs_anon_sym_QMARK_QMARK,
      mozjs_anon_sym_instanceof, mozjs_anon_sym_PLUS_PLUS, mozjs_anon_sym_DASH_DASH,
      mozjs_anon_sym_BQUOTE]"

definition mozjs_small_run_28455 :: "nat list" where
  "mozjs_small_run_28455 =
    [6, 1485, 1, mozjs_anon_sym_EQ, 1554, 1, mozjs_anon_sym_of, 1556, 1, mozjs_anon_sym_in, 5, 2,
      mozjs_sym_html_comment, mozjs_sym_comment, 1435, 11, mozjs_anon_sym_STAR,
      mozjs_anon_sym_LT, mozjs_anon_sym_GT, mozjs_anon_sym_GT_GT, mozjs_anon_sym_AMP,
      mozjs_anon_sym_PIPE, mozjs_anon_sym_PLUS, mozjs_anon_sym_DASH, mozjs_anon_sym_SLASH,
      mozjs_anon_sym_EQ_EQ, mozjs_anon_sym_BANG_EQ, 1437, 23, mozjs_sym__ternary_qmark,
      mozjs_anon_sym_COMMA, mozjs_anon_sym_LPAREN, mozjs_anon_sym_SEMI, mozjs_anon_sym_LBRACK,
      mozjs_anon_sym_DOT, mozjs_sym_optional_chain, mozjs_anon_sym_AMP_AMP,
      mozjs_anon_sym_PIPE_PIPE, mozjs_anon_sym_GT_GT_GT, mozjs_anon_sym_LT_LT,
      mozjs_anon_sym_CARET, mozjs_anon_sym_PERCENT, mozjs_anon_sym_STAR_STAR,
      mozjs_anon_sym_LT_EQ, mozjs_anon_sym_EQ_EQ_EQ, mozjs_anon_sym_BANG_EQ_EQ,
      mozjs_anon_sym_GT_EQ, mozjs_anon_sym_QMARK_QMARK, mozjs_anon_sym_instanceof,
      mozjs_anon_sym_PLUS_PLUS, mozjs_anon_sym_DASH_DASH, mozjs_anon_sym_BQUOTE]"

definition mozjs_small_run_28507 :: "nat list" where
  "mozjs_small_run_28507 =
    [26, 1827, 1, mozjs_anon_sym_LPAREN, 1829, 1, mozjs_anon_sym_LBRACK, 1831, 1,
      mozjs_anon_sym_DOT, 1845, 1, mozjs_sym_optional_chain, 1855, 1, mozjs_anon_sym_AMP_AMP,
      1857, 1, mozjs_anon_sym_PIPE_PIPE, 1859, 1, mozjs_anon_sym_GT_GT, 1863, 1,
      mozjs_anon_sym_AMP, 1865, 1, mozjs_anon_sym_CARET, 1867, 1, mozjs_anon_sym_PIPE, 1871, 1,
      mozjs_anon_sym_PERCENT, 1873, 1, mozjs_anon_sym_STAR_STAR, 1881, 1,
      mozjs_anon_sym_QMARK_QMARK, 1883, 1, mozjs_sym__ternary_qmark, 1961, 1, mozjs_anon_sym_in,
      804, 1, mozjs_sym_arguments, 5, 2, mozjs_sym_html_comment, mozjs_sym_comment, 1849, 2,
      mozjs_anon_sym_PLUS_PLUS, mozjs_anon_sym_DASH_DASH, 1851, 2, mozjs_anon_sym_STAR,
      mozjs_anon_sym_SLASH, 1853, 2, mozjs_anon_sym_LT, mozjs_anon_sym_GT, 1861, 2,
      mozjs_anon_sym_GT_GT_GT, mozjs_anon_sym_LT_LT, 1869, 2, mozjs_anon_sym_PLUS,
      mozjs_anon_sym_DASH, 1877, 2, mozjs_anon_sym_EQ_EQ, mozjs_anon_sym_BANG_EQ, 1879, 2,
      mozjs_anon_sym_EQ_EQ_EQ, mozjs_anon_sym_BANG_EQ_EQ, 1875, 3, mozjs_anon_sym_LT_EQ,
      mozjs_anon_sym_GT_EQ, mozjs_anon_sym_instanceof, 1959, 4, mozjs_sym__automatic_semicolon,
      mozjs_anon_sym_COMMA, mozjs_anon_sym_of, mozjs_anon_sym_SEMI]"

definition mozjs_small_run_28599 :: "nat list" where
  "mozjs_small_run_28599 =
    [5, 1485, 1, mozjs_anon_sym_EQ, 5, 2, mozjs_sym_html_comment, mozjs_sym_comment, 1561, 3,
      mozjs_anon_sym_COMMA, mozjs_anon_sym_RBRACE, mozjs_anon_sym_RBRACK, 1435, 12,
      mozjs_anon_sym_STAR, mozjs_anon_sym_in, mozjs_anon_sym_LT, mozjs_anon_sym_GT,
      mozjs_anon_sym_GT_GT, mozjs_anon_sym_AMP, mozjs_anon_sym_PIPE, mozjs_anon_sym_PLUS,
      mozjs_anon_sym_DASH, mozjs_anon_sym_SLASH, mozjs_anon_sym_EQ_EQ, mozjs_anon_sym_BANG_EQ,
      1437, 21, mozjs_sym__ternary_qmark, mozjs_anon_sym_LPAREN, mozjs_anon_sym_LBRACK,
      mozjs_anon_sym_DOT, mozjs_sym_optional_chain, mozjs_anon_sym_AMP_AMP,
      mozjs_anon_sym_PIPE_PIPE, mozjs_anon_sym_GT_GT_GT, mozjs_anon_sym_LT_LT,
      mozjs_anon_sym_CARET, mozjs_anon_sym_PERCENT, mozjs_anon_sym_STAR_STAR,
      mozjs_anon_sym_LT_EQ, mozjs_anon_sym_EQ_EQ_EQ, mozjs_anon_sym_BANG_EQ_EQ,
      mozjs_anon_sym_GT_EQ, mozjs_anon_sym_QMARK_QMARK, mozjs_anon_sym_instanceof,
      mozjs_anon_sym_PLUS_PLUS, mozjs_anon_sym_DASH_DASH, mozjs_anon_sym_BQUOTE]"

definition mozjs_small_run_28649 :: "nat list" where
  "mozjs_small_run_28649 =
    [25, 1578, 1, mozjs_anon_sym_LPAREN, 1580, 1, mozjs_anon_sym_LBRACK, 1582, 1,
      mozjs_anon_sym_DOT, 1594, 1, mozjs_sym_optional_chain, 1793, 1, mozjs_anon_sym_GT_GT, 1801,
      1, mozjs_anon_sym_PERCENT, 1803, 1, mozjs_anon_sym_STAR_STAR, 1809, 1,
      mozjs_anon_sym_AMP_AMP, 1811, 1, mozjs_anon_sym_PIPE_PIPE, 1813, 1, mozjs_anon_sym_AMP,
      1815, 1, mozjs_anon_sym_CARET, 1817, 1, mozjs_anon_sym_PIPE, 1823, 1,
      mozjs_anon_sym_QMARK_QMARK, 1825, 1, mozjs_sym__ternary_qmark, 639, 1, mozjs_sym_arguments,
      5, 2, mozjs_sym_html_comment, mozjs_sym_comment, 1600, 2, mozjs_anon_sym_PLUS_PLUS,
      mozjs_anon_sym_DASH_DASH, 1787, 2, mozjs_anon_sym_STAR, mozjs_anon_sym_SLASH, 1795, 2,
      mozjs_anon_sym_GT_GT_GT, mozjs_anon_sym_LT_LT, 1799, 2, mozjs_anon_sym_PLUS,
      mozjs_anon_sym_DASH, 1819, 2, mozjs_anon_sym_EQ_EQ, mozjs_anon_sym_BANG_EQ, 1821, 2,
      mozjs_anon_sym_EQ_EQ_EQ, mozjs_anon_sym_BANG_EQ_EQ, 1791, 3, mozjs_anon_sym_in,
      mozjs_anon_sym_LT, mozjs_anon_sym_GT, 1805, 3, mozjs_anon_sym_LT_EQ, mozjs_anon_sym_GT_EQ,
      mozjs_anon_sym_instanceof, 1964, 4, mozjs_anon_sym_COMMA, mozjs_anon_sym_RBRACE,
      mozjs_anon_sym_RPAREN, mozjs_anon_sym_RBRACK]"

definition mozjs_small_run_28739 :: "nat list" where
  "mozjs_small_run_28739 =
    [27, 1827, 1, mozjs_anon_sym_LPAREN, 1829, 1, mozjs_anon_sym_LBRACK, 1831, 1,
      mozjs_anon_sym_DOT, 1845, 1, mozjs_sym_optional_chain, 1891, 1, mozjs_anon_sym_AMP_AMP,
      1893, 1, mozjs_anon_sym_PIPE_PIPE, 1895, 1, mozjs_anon_sym_GT_GT, 1899, 1,
      mozjs_anon_sym_AMP, 1901, 1, mozjs_anon_sym_CARET, 1903, 1, mozjs_anon_sym_PIPE, 1907, 1,
      mozjs_anon_sym_PERCENT, 1909, 1, mozjs_anon_sym_STAR_STAR, 1917, 1,
      mozjs_anon_sym_QMARK_QMARK, 1919, 1, mozjs_sym__ternary_qmark, 1950, 1,
      mozjs_anon_sym_COMMA, 804, 1, mozjs_sym_arguments, 1330, 1,
      mozjs_aux_sym_sequence_expression_repeat1, 5, 2, mozjs_sym_html_comment, mozjs_sym_comment,
      1849, 2, mozjs_anon_sym_PLUS_PLUS, mozjs_anon_sym_DASH_DASH, 1887, 2, mozjs_anon_sym_STAR,
      mozjs_anon_sym_SLASH, 1897, 2, mozjs_anon_sym_GT_GT_GT, mozjs_anon_sym_LT_LT, 1905, 2,
      mozjs_anon_sym_PLUS, mozjs_anon_sym_DASH, 1913, 2, mozjs_anon_sym_EQ_EQ,
      mozjs_anon_sym_BANG_EQ, 1915, 2, mozjs_anon_sym_EQ_EQ_EQ, mozjs_anon_sym_BANG_EQ_EQ, 1966,
      2, mozjs_sym__automatic_semicolon, mozjs_anon_sym_SEMI, 1889, 3, mozjs_anon_sym_in,
      mozjs_anon_sym_LT, mozjs_anon_sym_GT, 1911, 3, mozjs_anon_sym_LT_EQ, mozjs_anon_sym_GT_EQ,
      mozjs_anon_sym_instanceof]"

definition mozjs_small_run_28833 :: "nat list" where
  "mozjs_small_run_28833 =
    [27, 1827, 1, mozjs_anon_sym_LPAREN, 1829, 1, mozjs_anon_sym_LBRACK, 1831, 1,
      mozjs_anon_sym_DOT, 1845, 1, mozjs_sym_optional_chain, 1891, 1, mozjs_anon_sym_AMP_AMP,
      1893, 1, mozjs_anon_sym_PIPE_PIPE, 1895, 1, mozjs_anon_sym_GT_GT, 1899, 1,
      mozjs_anon_sym_AMP, 1901, 1, mozjs_anon_sym_CARET, 1903, 1, mozjs_anon_sym_PIPE, 1907, 1,
      mozjs_anon_sym_PERCENT, 1909, 1, mozjs_anon_sym_STAR_STAR, 1917, 1,
      mozjs_anon_sym_QMARK_QMARK, 1919, 1, mozjs_sym__ternary_qmark, 1948, 1,
      mozjs_anon_sym_RBRACE, 1968, 1, mozjs_anon_sym_COMMA, 804, 1, mozjs_sym_arguments, 5, 2,
      mozjs_sym_html_comment, mozjs_sym_comment, 1841, 2, mozjs_sym__automatic_semicolon,
      mozjs_anon_sym_SEMI, 1849, 2, mozjs_anon_sym_PLUS_PLUS, mozjs_anon_sym_DASH_DASH, 1887, 2,
      mozjs_anon_sym_STAR, mozjs_anon_sym_SLASH, 1897, 2, mozjs_anon_sym_GT_GT_GT,
      mozjs_anon_sym_LT_LT, 1905, 2, mozjs_anon_sym_PLUS, mozjs_anon_sym_DASH, 1913, 2,
      mozjs_anon_sym_EQ_EQ, mozjs_anon_sym_BANG_EQ, 1915, 2, mozjs_anon_sym_EQ_EQ_EQ,
      mozjs_anon_sym_BANG_EQ_EQ, 1889, 3, mozjs_anon_sym_in, mozjs_anon_sym_LT,
      mozjs_anon_sym_GT, 1911, 3, mozjs_anon_sym_LT_EQ, mozjs_anon_sym_GT_EQ,
      mozjs_anon_sym_instanceof]"

definition mozjs_small_run_28927 :: "nat list" where
  "mozjs_small_run_28927 =
    [6, 1777, 1, mozjs_anon_sym_EQ, 1921, 1, mozjs_anon_sym_of, 1971, 1, mozjs_anon_sym_in, 5, 2,
      mozjs_sym_html_comment, mozjs_sym_comment, 1770, 11, mozjs_anon_sym_STAR,
      mozjs_anon_sym_LT, mozjs_anon_sym_GT, mozjs_anon_sym_GT_GT, mozjs_anon_sym_AMP,
      mozjs_anon_sym_PIPE, mozjs_anon_sym_PLUS, mozjs_anon_sym_DASH, mozjs_anon_sym_SLASH,
      mozjs_anon_sym_EQ_EQ, mozjs_anon_sym_BANG_EQ, 1772, 23, mozjs_sym__ternary_qmark,
      mozjs_anon_sym_COMMA, mozjs_anon_sym_LPAREN, mozjs_anon_sym_SEMI, mozjs_anon_sym_LBRACK,
      mozjs_anon_sym_DOT, mozjs_sym_optional_chain, mozjs_anon_sym_AMP_AMP,
      mozjs_anon_sym_PIPE_PIPE, mozjs_anon_sym_GT_GT_GT, mozjs_anon_sym_LT_LT,
      mozjs_anon_sym_CARET, mozjs_anon_sym_PERCENT, mozjs_anon_sym_STAR_STAR,
      mozjs_anon_sym_LT_EQ, mozjs_anon_sym_EQ_EQ_EQ, mozjs_anon_sym_BANG_EQ_EQ,
      mozjs_anon_sym_GT_EQ, mozjs_anon_sym_QMARK_QMARK, mozjs_anon_sym_instanceof,
      mozjs_anon_sym_PLUS_PLUS, mozjs_anon_sym_DASH_DASH, mozjs_anon_sym_BQUOTE]"

definition mozjs_small_run_28979 :: "nat list" where
  "mozjs_small_run_28979 =
    [27, 1827, 1, mozjs_anon_sym_LPAREN, 1829, 1, mozjs_anon_sym_LBRACK, 1831, 1,
      mozjs_anon_sym_DOT, 1845, 1, mozjs_sym_optional_chain, 1891, 1, mozjs_anon_sym_AMP_AMP,
      1893, 1, mozjs_anon_sym_PIPE_PIPE, 1895, 1, mozjs_anon_sym_GT_GT, 1899, 1,
      mozjs_anon_sym_AMP, 1901, 1, mozjs_anon_sym_CARET, 1903, 1, mozjs_anon_sym_PIPE, 1907, 1,
      mozjs_anon_sym_PERCENT, 1909, 1, mozjs_anon_sym_STAR_STAR, 1917, 1,
      mozjs_anon_sym_QMARK_QMARK, 1919, 1, mozjs_sym__ternary_qmark, 1950, 1,
      mozjs_anon_sym_COMMA, 804, 1, mozjs_sym_arguments, 1330, 1,
      mozjs_aux_sym_sequence_expression_repeat1, 5, 2, mozjs_sym_html_comment, mozjs_sym_comment,
      1849, 2, mozjs_anon_sym_PLUS_PLUS, mozjs_anon_sym_DASH_DASH, 1887, 2, mozjs_anon_sym_STAR,
      mozjs_anon_sym_SLASH, 1897, 2, mozjs_anon_sym_GT_GT_GT, mozjs_anon_sym_LT_LT, 1905, 2,
      mozjs_anon_sym_PLUS, mozjs_anon_sym_DASH, 1913, 2, mozjs_anon_sym_EQ_EQ,
      mozjs_anon_sym_BANG_EQ, 1915, 2, mozjs_anon_sym_EQ_EQ_EQ, mozjs_anon_sym_BANG_EQ_EQ, 1974,
      2, mozjs_sym__automatic_semicolon, mozjs_anon_sym_SEMI, 1889, 3, mozjs_anon_sym_in,
      mozjs_anon_sym_LT, mozjs_anon_sym_GT, 1911, 3, mozjs_anon_sym_LT_EQ, mozjs_anon_sym_GT_EQ,
      mozjs_anon_sym_instanceof]"

definition mozjs_small_run_29073 :: "nat list" where
  "mozjs_small_run_29073 =
    [24, 93, 1, mozjs_anon_sym_AT, 103, 1, mozjs_anon_sym_STAR, 105, 1, mozjs_anon_sym_COMMA,
      117, 1, mozjs_anon_sym_DOT_DOT_DOT, 125, 1, mozjs_aux_sym_method_definition_token1, 1084,
      1, mozjs_anon_sym_DQUOTE, 1086, 1, mozjs_anon_sym_SQUOTE, 1978, 1, mozjs_anon_sym_LBRACE,
      1980, 1, mozjs_anon_sym_RBRACE, 1982, 1, mozjs_anon_sym_LBRACK, 1984, 1,
      mozjs_anon_sym_async, 1988, 1, mozjs_anon_sym_static, 1023, 1,
      mozjs_aux_sym_export_statement_repeat1, 1112, 1, mozjs_sym_decorator, 1430, 1,
      mozjs_aux_sym_object_repeat1, 1432, 1, mozjs_aux_sym_object_pattern_repeat1, 5, 2,
      mozjs_sym_html_comment, mozjs_sym_comment, 1986, 2, mozjs_sym_number,
      mozjs_sym_private_property_identifier, 1990, 2, mozjs_anon_sym_get, mozjs_anon_sym_set,
      1423, 3, mozjs_sym_object_assignment_pattern, mozjs_sym_rest_pattern,
      mozjs_sym_pair_pattern, 1427, 3, mozjs_sym_spread_element, mozjs_sym_method_definition,
      mozjs_sym_pair, 1428, 3, mozjs_sym_string, mozjs_sym__property_name,
      mozjs_sym_computed_property_name, 1855, 3, mozjs_sym_object_pattern,
      mozjs_sym_array_pattern, mozjs_sym__destructuring_pattern, 1976, 4, mozjs_anon_sym_export,
      mozjs_anon_sym_let, mozjs_anon_sym_await, mozjs_sym_identifier]"

definition mozjs_small_run_29160 :: "nat list" where
  "mozjs_small_run_29160 =
    [27, 1578, 1, mozjs_anon_sym_LPAREN, 1580, 1, mozjs_anon_sym_LBRACK, 1582, 1,
      mozjs_anon_sym_DOT, 1594, 1, mozjs_sym_optional_chain, 1793, 1, mozjs_anon_sym_GT_GT, 1801,
      1, mozjs_anon_sym_PERCENT, 1803, 1, mozjs_anon_sym_STAR_STAR, 1809, 1,
      mozjs_anon_sym_AMP_AMP, 1811, 1, mozjs_anon_sym_PIPE_PIPE, 1813, 1, mozjs_anon_sym_AMP,
      1815, 1, mozjs_anon_sym_CARET, 1817, 1, mozjs_anon_sym_PIPE, 1823, 1,
      mozjs_anon_sym_QMARK_QMARK, 1825, 1, mozjs_sym__ternary_qmark, 1992, 1,
      mozjs_anon_sym_COMMA, 1994, 1, mozjs_anon_sym_RPAREN, 639, 1, mozjs_sym_arguments, 1208, 1,
      mozjs_aux_sym_sequence_expression_repeat1, 5, 2, mozjs_sym_html_comment, mozjs_sym_comment,
      1600, 2, mozjs_anon_sym_PLUS_PLUS, mozjs_anon_sym_DASH_DASH, 1787, 2, mozjs_anon_sym_STAR,
      mozjs_anon_sym_SLASH, 1795, 2, mozjs_anon_sym_GT_GT_GT, mozjs_anon_sym_LT_LT, 1799, 2,
      mozjs_anon_sym_PLUS, mozjs_anon_sym_DASH, 1819, 2, mozjs_anon_sym_EQ_EQ,
      mozjs_anon_sym_BANG_EQ, 1821, 2, mozjs_anon_sym_EQ_EQ_EQ, mozjs_anon_sym_BANG_EQ_EQ, 1791,
      3, mozjs_anon_sym_in, mozjs_anon_sym_LT, mozjs_anon_sym_GT, 1805, 3, mozjs_anon_sym_LT_EQ,
      mozjs_anon_sym_GT_EQ, mozjs_anon_sym_instanceof]"

definition mozjs_small_run_29253 :: "nat list" where
  "mozjs_small_run_29253 =
    [27, 1578, 1, mozjs_anon_sym_LPAREN, 1580, 1, mozjs_anon_sym_LBRACK, 1582, 1,
      mozjs_anon_sym_DOT, 1594, 1, mozjs_sym_optional_chain, 1793, 1, mozjs_anon_sym_GT_GT, 1801,
      1, mozjs_anon_sym_PERCENT, 1803, 1, mozjs_anon_sym_STAR_STAR, 1809, 1,
      mozjs_anon_sym_AMP_AMP, 1811, 1, mozjs_anon_sym_PIPE_PIPE, 1813, 1, mozjs_anon_sym_AMP,
      1815, 1, mozjs_anon_sym_CARET, 1817, 1, mozjs_anon_sym_PIPE, 1823, 1,
      mozjs_anon_sym_QMARK_QMARK, 1825, 1, mozjs_sym__ternary_qmark, 1992, 1,
      mozjs_anon_sym_COMMA, 1996, 1, mozjs_anon_sym_RPAREN, 639, 1, mozjs_sym_arguments, 1208, 1,
      mozjs_aux_sym_sequence_expression_repeat1, 5, 2, mozjs_sym_html_comment, mozjs_sym_comment,
      1600, 2, mozjs_anon_sym_PLUS_PLUS, mozjs_anon_sym_DASH_DASH, 1787, 2, mozjs_anon_sym_STAR,
      mozjs_anon_sym_SLASH, 1795, 2, mozjs_anon_sym_GT_GT_GT, mozjs_anon_sym_LT_LT, 1799, 2,
      mozjs_anon_sym_PLUS, mozjs_anon_sym_DASH, 1819, 2, mozjs_anon_sym_EQ_EQ,
      mozjs_anon_sym_BANG_EQ, 1821, 2, mozjs_anon_sym_EQ_EQ_EQ, mozjs_anon_sym_BANG_EQ_EQ, 1791,
      3, mozjs_anon_sym_in, mozjs_anon_sym_LT, mozjs_anon_sym_GT, 1805, 3, mozjs_anon_sym_LT_EQ,
      mozjs_anon_sym_GT_EQ, mozjs_anon_sym_instanceof]"

definition mozjs_small_run_29346 :: "nat list" where
  "mozjs_small_run_29346 =
    [27, 1578, 1, mozjs_anon_sym_LPAREN, 1580, 1, mozjs_anon_sym_LBRACK, 1582, 1,
      mozjs_anon_sym_DOT, 1594, 1, mozjs_sym_optional_chain, 1793, 1, mozjs_anon_sym_GT_GT, 1801,
      1, mozjs_anon_sym_PERCENT, 1803, 1, mozjs_anon_sym_STAR_STAR, 1809, 1,
      mozjs_anon_sym_AMP_AMP, 1811, 1, mozjs_anon_sym_PIPE_PIPE, 1813, 1, mozjs_anon_sym_AMP,
      1815, 1, mozjs_anon_sym_CARET, 1817, 1, mozjs_anon_sym_PIPE, 1823, 1,
      mozjs_anon_sym_QMARK_QMARK, 1825, 1, mozjs_sym__ternary_qmark, 1992, 1,
      mozjs_anon_sym_COMMA, 1998, 1, mozjs_anon_sym_RPAREN, 639, 1, mozjs_sym_arguments, 1208, 1,
      mozjs_aux_sym_sequence_expression_repeat1, 5, 2, mozjs_sym_html_comment, mozjs_sym_comment,
      1600, 2, mozjs_anon_sym_PLUS_PLUS, mozjs_anon_sym_DASH_DASH, 1787, 2, mozjs_anon_sym_STAR,
      mozjs_anon_sym_SLASH, 1795, 2, mozjs_anon_sym_GT_GT_GT, mozjs_anon_sym_LT_LT, 1799, 2,
      mozjs_anon_sym_PLUS, mozjs_anon_sym_DASH, 1819, 2, mozjs_anon_sym_EQ_EQ,
      mozjs_anon_sym_BANG_EQ, 1821, 2, mozjs_anon_sym_EQ_EQ_EQ, mozjs_anon_sym_BANG_EQ_EQ, 1791,
      3, mozjs_anon_sym_in, mozjs_anon_sym_LT, mozjs_anon_sym_GT, 1805, 3, mozjs_anon_sym_LT_EQ,
      mozjs_anon_sym_GT_EQ, mozjs_anon_sym_instanceof]"

definition mozjs_small_run_29439 :: "nat list" where
  "mozjs_small_run_29439 =
    [27, 1578, 1, mozjs_anon_sym_LPAREN, 1580, 1, mozjs_anon_sym_LBRACK, 1582, 1,
      mozjs_anon_sym_DOT, 1594, 1, mozjs_sym_optional_chain, 1793, 1, mozjs_anon_sym_GT_GT, 1801,
      1, mozjs_anon_sym_PERCENT, 1803, 1, mozjs_anon_sym_STAR_STAR, 1809, 1,
      mozjs_anon_sym_AMP_AMP, 1811, 1, mozjs_anon_sym_PIPE_PIPE, 1813, 1, mozjs_anon_sym_AMP,
      1815, 1, mozjs_anon_sym_CARET, 1817, 1, mozjs_anon_sym_PIPE, 1823, 1,
      mozjs_anon_sym_QMARK_QMARK, 1825, 1, mozjs_sym__ternary_qmark, 1992, 1,
      mozjs_anon_sym_COMMA, 2000, 1, mozjs_anon_sym_RPAREN, 639, 1, mozjs_sym_arguments, 1208, 1,
      mozjs_aux_sym_sequence_expression_repeat1, 5, 2, mozjs_sym_html_comment, mozjs_sym_comment,
      1600, 2, mozjs_anon_sym_PLUS_PLUS, mozjs_anon_sym_DASH_DASH, 1787, 2, mozjs_anon_sym_STAR,
      mozjs_anon_sym_SLASH, 1795, 2, mozjs_anon_sym_GT_GT_GT, mozjs_anon_sym_LT_LT, 1799, 2,
      mozjs_anon_sym_PLUS, mozjs_anon_sym_DASH, 1819, 2, mozjs_anon_sym_EQ_EQ,
      mozjs_anon_sym_BANG_EQ, 1821, 2, mozjs_anon_sym_EQ_EQ_EQ, mozjs_anon_sym_BANG_EQ_EQ, 1791,
      3, mozjs_anon_sym_in, mozjs_anon_sym_LT, mozjs_anon_sym_GT, 1805, 3, mozjs_anon_sym_LT_EQ,
      mozjs_anon_sym_GT_EQ, mozjs_anon_sym_instanceof]"

definition mozjs_small_run_29532 :: "nat list" where
  "mozjs_small_run_29532 =
    [27, 1578, 1, mozjs_anon_sym_LPAREN, 1580, 1, mozjs_anon_sym_LBRACK, 1582, 1,
      mozjs_anon_sym_DOT, 1594, 1, mozjs_sym_optional_chain, 1793, 1, mozjs_anon_sym_GT_GT, 1801,
      1, mozjs_anon_sym_PERCENT, 1803, 1, mozjs_anon_sym_STAR_STAR, 1809, 1,
      mozjs_anon_sym_AMP_AMP, 1811, 1, mozjs_anon_sym_PIPE_PIPE, 1813, 1, mozjs_anon_sym_AMP,
      1815, 1, mozjs_anon_sym_CARET, 1817, 1, mozjs_anon_sym_PIPE, 1823, 1,
      mozjs_anon_sym_QMARK_QMARK, 1825, 1, mozjs_sym__ternary_qmark, 1992, 1,
      mozjs_anon_sym_COMMA, 2002, 1, mozjs_anon_sym_RPAREN, 639, 1, mozjs_sym_arguments, 1208, 1,
      mozjs_aux_sym_sequence_expression_repeat1, 5, 2, mozjs_sym_html_comment, mozjs_sym_comment,
      1600, 2, mozjs_anon_sym_PLUS_PLUS, mozjs_anon_sym_DASH_DASH, 1787, 2, mozjs_anon_sym_STAR,
      mozjs_anon_sym_SLASH, 1795, 2, mozjs_anon_sym_GT_GT_GT, mozjs_anon_sym_LT_LT, 1799, 2,
      mozjs_anon_sym_PLUS, mozjs_anon_sym_DASH, 1819, 2, mozjs_anon_sym_EQ_EQ,
      mozjs_anon_sym_BANG_EQ, 1821, 2, mozjs_anon_sym_EQ_EQ_EQ, mozjs_anon_sym_BANG_EQ_EQ, 1791,
      3, mozjs_anon_sym_in, mozjs_anon_sym_LT, mozjs_anon_sym_GT, 1805, 3, mozjs_anon_sym_LT_EQ,
      mozjs_anon_sym_GT_EQ, mozjs_anon_sym_instanceof]"

definition mozjs_small_run_29625 :: "nat list" where
  "mozjs_small_run_29625 =
    [27, 1578, 1, mozjs_anon_sym_LPAREN, 1580, 1, mozjs_anon_sym_LBRACK, 1582, 1,
      mozjs_anon_sym_DOT, 1594, 1, mozjs_sym_optional_chain, 1793, 1, mozjs_anon_sym_GT_GT, 1801,
      1, mozjs_anon_sym_PERCENT, 1803, 1, mozjs_anon_sym_STAR_STAR, 1809, 1,
      mozjs_anon_sym_AMP_AMP, 1811, 1, mozjs_anon_sym_PIPE_PIPE, 1813, 1, mozjs_anon_sym_AMP,
      1815, 1, mozjs_anon_sym_CARET, 1817, 1, mozjs_anon_sym_PIPE, 1823, 1,
      mozjs_anon_sym_QMARK_QMARK, 1825, 1, mozjs_sym__ternary_qmark, 1992, 1,
      mozjs_anon_sym_COMMA, 2004, 1, mozjs_anon_sym_RPAREN, 639, 1, mozjs_sym_arguments, 1208, 1,
      mozjs_aux_sym_sequence_expression_repeat1, 5, 2, mozjs_sym_html_comment, mozjs_sym_comment,
      1600, 2, mozjs_anon_sym_PLUS_PLUS, mozjs_anon_sym_DASH_DASH, 1787, 2, mozjs_anon_sym_STAR,
      mozjs_anon_sym_SLASH, 1795, 2, mozjs_anon_sym_GT_GT_GT, mozjs_anon_sym_LT_LT, 1799, 2,
      mozjs_anon_sym_PLUS, mozjs_anon_sym_DASH, 1819, 2, mozjs_anon_sym_EQ_EQ,
      mozjs_anon_sym_BANG_EQ, 1821, 2, mozjs_anon_sym_EQ_EQ_EQ, mozjs_anon_sym_BANG_EQ_EQ, 1791,
      3, mozjs_anon_sym_in, mozjs_anon_sym_LT, mozjs_anon_sym_GT, 1805, 3, mozjs_anon_sym_LT_EQ,
      mozjs_anon_sym_GT_EQ, mozjs_anon_sym_instanceof]"

definition mozjs_small_run_29718 :: "nat list" where
  "mozjs_small_run_29718 =
    [27, 1578, 1, mozjs_anon_sym_LPAREN, 1580, 1, mozjs_anon_sym_LBRACK, 1582, 1,
      mozjs_anon_sym_DOT, 1594, 1, mozjs_sym_optional_chain, 1793, 1, mozjs_anon_sym_GT_GT, 1801,
      1, mozjs_anon_sym_PERCENT, 1803, 1, mozjs_anon_sym_STAR_STAR, 1809, 1,
      mozjs_anon_sym_AMP_AMP, 1811, 1, mozjs_anon_sym_PIPE_PIPE, 1813, 1, mozjs_anon_sym_AMP,
      1815, 1, mozjs_anon_sym_CARET, 1817, 1, mozjs_anon_sym_PIPE, 1823, 1,
      mozjs_anon_sym_QMARK_QMARK, 1825, 1, mozjs_sym__ternary_qmark, 1992, 1,
      mozjs_anon_sym_COMMA, 2006, 1, mozjs_anon_sym_RPAREN, 639, 1, mozjs_sym_arguments, 1208, 1,
      mozjs_aux_sym_sequence_expression_repeat1, 5, 2, mozjs_sym_html_comment, mozjs_sym_comment,
      1600, 2, mozjs_anon_sym_PLUS_PLUS, mozjs_anon_sym_DASH_DASH, 1787, 2, mozjs_anon_sym_STAR,
      mozjs_anon_sym_SLASH, 1795, 2, mozjs_anon_sym_GT_GT_GT, mozjs_anon_sym_LT_LT, 1799, 2,
      mozjs_anon_sym_PLUS, mozjs_anon_sym_DASH, 1819, 2, mozjs_anon_sym_EQ_EQ,
      mozjs_anon_sym_BANG_EQ, 1821, 2, mozjs_anon_sym_EQ_EQ_EQ, mozjs_anon_sym_BANG_EQ_EQ, 1791,
      3, mozjs_anon_sym_in, mozjs_anon_sym_LT, mozjs_anon_sym_GT, 1805, 3, mozjs_anon_sym_LT_EQ,
      mozjs_anon_sym_GT_EQ, mozjs_anon_sym_instanceof]"

definition mozjs_small_run_29811 :: "nat list" where
  "mozjs_small_run_29811 =
    [27, 1578, 1, mozjs_anon_sym_LPAREN, 1580, 1, mozjs_anon_sym_LBRACK, 1582, 1,
      mozjs_anon_sym_DOT, 1594, 1, mozjs_sym_optional_chain, 1793, 1, mozjs_anon_sym_GT_GT, 1801,
      1, mozjs_anon_sym_PERCENT, 1803, 1, mozjs_anon_sym_STAR_STAR, 1809, 1,
      mozjs_anon_sym_AMP_AMP, 1811, 1, mozjs_anon_sym_PIPE_PIPE, 1813, 1, mozjs_anon_sym_AMP,
      1815, 1, mozjs_anon_sym_CARET, 1817, 1, mozjs_anon_sym_PIPE, 1823, 1,
      mozjs_anon_sym_QMARK_QMARK, 1825, 1, mozjs_sym__ternary_qmark, 1992, 1,
      mozjs_anon_sym_COMMA, 2008, 1, mozjs_anon_sym_RPAREN, 639, 1, mozjs_sym_arguments, 1208, 1,
      mozjs_aux_sym_sequence_expression_repeat1, 5, 2, mozjs_sym_html_comment, mozjs_sym_comment,
      1600, 2, mozjs_anon_sym_PLUS_PLUS, mozjs_anon_sym_DASH_DASH, 1787, 2, mozjs_anon_sym_STAR,
      mozjs_anon_sym_SLASH, 1795, 2, mozjs_anon_sym_GT_GT_GT, mozjs_anon_sym_LT_LT, 1799, 2,
      mozjs_anon_sym_PLUS, mozjs_anon_sym_DASH, 1819, 2, mozjs_anon_sym_EQ_EQ,
      mozjs_anon_sym_BANG_EQ, 1821, 2, mozjs_anon_sym_EQ_EQ_EQ, mozjs_anon_sym_BANG_EQ_EQ, 1791,
      3, mozjs_anon_sym_in, mozjs_anon_sym_LT, mozjs_anon_sym_GT, 1805, 3, mozjs_anon_sym_LT_EQ,
      mozjs_anon_sym_GT_EQ, mozjs_anon_sym_instanceof]"

definition mozjs_small_run_29904 :: "nat list" where
  "mozjs_small_run_29904 =
    [27, 1578, 1, mozjs_anon_sym_LPAREN, 1580, 1, mozjs_anon_sym_LBRACK, 1582, 1,
      mozjs_anon_sym_DOT, 1594, 1, mozjs_sym_optional_chain, 1793, 1, mozjs_anon_sym_GT_GT, 1801,
      1, mozjs_anon_sym_PERCENT, 1803, 1, mozjs_anon_sym_STAR_STAR, 1809, 1,
      mozjs_anon_sym_AMP_AMP, 1811, 1, mozjs_anon_sym_PIPE_PIPE, 1813, 1, mozjs_anon_sym_AMP,
      1815, 1, mozjs_anon_sym_CARET, 1817, 1, mozjs_anon_sym_PIPE, 1823, 1,
      mozjs_anon_sym_QMARK_QMARK, 1825, 1, mozjs_sym__ternary_qmark, 1992, 1,
      mozjs_anon_sym_COMMA, 2010, 1, mozjs_anon_sym_RPAREN, 639, 1, mozjs_sym_arguments, 1208, 1,
      mozjs_aux_sym_sequence_expression_repeat1, 5, 2, mozjs_sym_html_comment, mozjs_sym_comment,
      1600, 2, mozjs_anon_sym_PLUS_PLUS, mozjs_anon_sym_DASH_DASH, 1787, 2, mozjs_anon_sym_STAR,
      mozjs_anon_sym_SLASH, 1795, 2, mozjs_anon_sym_GT_GT_GT, mozjs_anon_sym_LT_LT, 1799, 2,
      mozjs_anon_sym_PLUS, mozjs_anon_sym_DASH, 1819, 2, mozjs_anon_sym_EQ_EQ,
      mozjs_anon_sym_BANG_EQ, 1821, 2, mozjs_anon_sym_EQ_EQ_EQ, mozjs_anon_sym_BANG_EQ_EQ, 1791,
      3, mozjs_anon_sym_in, mozjs_anon_sym_LT, mozjs_anon_sym_GT, 1805, 3, mozjs_anon_sym_LT_EQ,
      mozjs_anon_sym_GT_EQ, mozjs_anon_sym_instanceof]"

definition mozjs_small_run_29997 :: "nat list" where
  "mozjs_small_run_29997 =
    [27, 1578, 1, mozjs_anon_sym_LPAREN, 1580, 1, mozjs_anon_sym_LBRACK, 1582, 1,
      mozjs_anon_sym_DOT, 1594, 1, mozjs_sym_optional_chain, 1793, 1, mozjs_anon_sym_GT_GT, 1801,
      1, mozjs_anon_sym_PERCENT, 1803, 1, mozjs_anon_sym_STAR_STAR, 1809, 1,
      mozjs_anon_sym_AMP_AMP, 1811, 1, mozjs_anon_sym_PIPE_PIPE, 1813, 1, mozjs_anon_sym_AMP,
      1815, 1, mozjs_anon_sym_CARET, 1817, 1, mozjs_anon_sym_PIPE, 1823, 1,
      mozjs_anon_sym_QMARK_QMARK, 1825, 1, mozjs_sym__ternary_qmark, 1992, 1,
      mozjs_anon_sym_COMMA, 2012, 1, mozjs_anon_sym_RPAREN, 639, 1, mozjs_sym_arguments, 1208, 1,
      mozjs_aux_sym_sequence_expression_repeat1, 5, 2, mozjs_sym_html_comment, mozjs_sym_comment,
      1600, 2, mozjs_anon_sym_PLUS_PLUS, mozjs_anon_sym_DASH_DASH, 1787, 2, mozjs_anon_sym_STAR,
      mozjs_anon_sym_SLASH, 1795, 2, mozjs_anon_sym_GT_GT_GT, mozjs_anon_sym_LT_LT, 1799, 2,
      mozjs_anon_sym_PLUS, mozjs_anon_sym_DASH, 1819, 2, mozjs_anon_sym_EQ_EQ,
      mozjs_anon_sym_BANG_EQ, 1821, 2, mozjs_anon_sym_EQ_EQ_EQ, mozjs_anon_sym_BANG_EQ_EQ, 1791,
      3, mozjs_anon_sym_in, mozjs_anon_sym_LT, mozjs_anon_sym_GT, 1805, 3, mozjs_anon_sym_LT_EQ,
      mozjs_anon_sym_GT_EQ, mozjs_anon_sym_instanceof]"

definition mozjs_small_run_30090 :: "nat list" where
  "mozjs_small_run_30090 =
    [27, 1578, 1, mozjs_anon_sym_LPAREN, 1580, 1, mozjs_anon_sym_LBRACK, 1582, 1,
      mozjs_anon_sym_DOT, 1594, 1, mozjs_sym_optional_chain, 1793, 1, mozjs_anon_sym_GT_GT, 1801,
      1, mozjs_anon_sym_PERCENT, 1803, 1, mozjs_anon_sym_STAR_STAR, 1809, 1,
      mozjs_anon_sym_AMP_AMP, 1811, 1, mozjs_anon_sym_PIPE_PIPE, 1813, 1, mozjs_anon_sym_AMP,
      1815, 1, mozjs_anon_sym_CARET, 1817, 1, mozjs_anon_sym_PIPE, 1823, 1,
      mozjs_anon_sym_QMARK_QMARK, 1825, 1, mozjs_sym__ternary_qmark, 1992, 1,
      mozjs_anon_sym_COMMA, 2014, 1, mozjs_anon_sym_RPAREN, 639, 1, mozjs_sym_arguments, 1208, 1,
      mozjs_aux_sym_sequence_expression_repeat1, 5, 2, mozjs_sym_html_comment, mozjs_sym_comment,
      1600, 2, mozjs_anon_sym_PLUS_PLUS, mozjs_anon_sym_DASH_DASH, 1787, 2, mozjs_anon_sym_STAR,
      mozjs_anon_sym_SLASH, 1795, 2, mozjs_anon_sym_GT_GT_GT, mozjs_anon_sym_LT_LT, 1799, 2,
      mozjs_anon_sym_PLUS, mozjs_anon_sym_DASH, 1819, 2, mozjs_anon_sym_EQ_EQ,
      mozjs_anon_sym_BANG_EQ, 1821, 2, mozjs_anon_sym_EQ_EQ_EQ, mozjs_anon_sym_BANG_EQ_EQ, 1791,
      3, mozjs_anon_sym_in, mozjs_anon_sym_LT, mozjs_anon_sym_GT, 1805, 3, mozjs_anon_sym_LT_EQ,
      mozjs_anon_sym_GT_EQ, mozjs_anon_sym_instanceof]"

definition mozjs_small_run_30183 :: "nat list" where
  "mozjs_small_run_30183 =
    [27, 919, 1, mozjs_anon_sym_COMMA, 1578, 1, mozjs_anon_sym_LPAREN, 1580, 1,
      mozjs_anon_sym_LBRACK, 1582, 1, mozjs_anon_sym_DOT, 1594, 1, mozjs_sym_optional_chain,
      1793, 1, mozjs_anon_sym_GT_GT, 1801, 1, mozjs_anon_sym_PERCENT, 1803, 1,
      mozjs_anon_sym_STAR_STAR, 1809, 1, mozjs_anon_sym_AMP_AMP, 1811, 1,
      mozjs_anon_sym_PIPE_PIPE, 1813, 1, mozjs_anon_sym_AMP, 1815, 1, mozjs_anon_sym_CARET, 1817,
      1, mozjs_anon_sym_PIPE, 1823, 1, mozjs_anon_sym_QMARK_QMARK, 1825, 1,
      mozjs_sym__ternary_qmark, 2016, 1, mozjs_anon_sym_RBRACK, 639, 1, mozjs_sym_arguments,
      1495, 1, mozjs_aux_sym_array_repeat1, 5, 2, mozjs_sym_html_comment, mozjs_sym_comment,
      1600, 2, mozjs_anon_sym_PLUS_PLUS, mozjs_anon_sym_DASH_DASH, 1787, 2, mozjs_anon_sym_STAR,
      mozjs_anon_sym_SLASH, 1795, 2, mozjs_anon_sym_GT_GT_GT, mozjs_anon_sym_LT_LT, 1799, 2,
      mozjs_anon_sym_PLUS, mozjs_anon_sym_DASH, 1819, 2, mozjs_anon_sym_EQ_EQ,
      mozjs_anon_sym_BANG_EQ, 1821, 2, mozjs_anon_sym_EQ_EQ_EQ, mozjs_anon_sym_BANG_EQ_EQ, 1791,
      3, mozjs_anon_sym_in, mozjs_anon_sym_LT, mozjs_anon_sym_GT, 1805, 3, mozjs_anon_sym_LT_EQ,
      mozjs_anon_sym_GT_EQ, mozjs_anon_sym_instanceof]"

definition mozjs_small_run_30276 :: "nat list" where
  "mozjs_small_run_30276 =
    [27, 1578, 1, mozjs_anon_sym_LPAREN, 1580, 1, mozjs_anon_sym_LBRACK, 1582, 1,
      mozjs_anon_sym_DOT, 1594, 1, mozjs_sym_optional_chain, 1793, 1, mozjs_anon_sym_GT_GT, 1801,
      1, mozjs_anon_sym_PERCENT, 1803, 1, mozjs_anon_sym_STAR_STAR, 1809, 1,
      mozjs_anon_sym_AMP_AMP, 1811, 1, mozjs_anon_sym_PIPE_PIPE, 1813, 1, mozjs_anon_sym_AMP,
      1815, 1, mozjs_anon_sym_CARET, 1817, 1, mozjs_anon_sym_PIPE, 1823, 1,
      mozjs_anon_sym_QMARK_QMARK, 1825, 1, mozjs_sym__ternary_qmark, 1992, 1,
      mozjs_anon_sym_COMMA, 2018, 1, mozjs_anon_sym_SEMI, 639, 1, mozjs_sym_arguments, 1208, 1,
      mozjs_aux_sym_sequence_expression_repeat1, 5, 2, mozjs_sym_html_comment, mozjs_sym_comment,
      1600, 2, mozjs_anon_sym_PLUS_PLUS, mozjs_anon_sym_DASH_DASH, 1787, 2, mozjs_anon_sym_STAR,
      mozjs_anon_sym_SLASH, 1795, 2, mozjs_anon_sym_GT_GT_GT, mozjs_anon_sym_LT_LT, 1799, 2,
      mozjs_anon_sym_PLUS, mozjs_anon_sym_DASH, 1819, 2, mozjs_anon_sym_EQ_EQ,
      mozjs_anon_sym_BANG_EQ, 1821, 2, mozjs_anon_sym_EQ_EQ_EQ, mozjs_anon_sym_BANG_EQ_EQ, 1791,
      3, mozjs_anon_sym_in, mozjs_anon_sym_LT, mozjs_anon_sym_GT, 1805, 3, mozjs_anon_sym_LT_EQ,
      mozjs_anon_sym_GT_EQ, mozjs_anon_sym_instanceof]"

definition mozjs_small_run_30369 :: "nat list" where
  "mozjs_small_run_30369 =
    [27, 1578, 1, mozjs_anon_sym_LPAREN, 1580, 1, mozjs_anon_sym_LBRACK, 1582, 1,
      mozjs_anon_sym_DOT, 1594, 1, mozjs_sym_optional_chain, 1793, 1, mozjs_anon_sym_GT_GT, 1801,
      1, mozjs_anon_sym_PERCENT, 1803, 1, mozjs_anon_sym_STAR_STAR, 1809, 1,
      mozjs_anon_sym_AMP_AMP, 1811, 1, mozjs_anon_sym_PIPE_PIPE, 1813, 1, mozjs_anon_sym_AMP,
      1815, 1, mozjs_anon_sym_CARET, 1817, 1, mozjs_anon_sym_PIPE, 1823, 1,
      mozjs_anon_sym_QMARK_QMARK, 1825, 1, mozjs_sym__ternary_qmark, 1992, 1,
      mozjs_anon_sym_COMMA, 2020, 1, mozjs_anon_sym_RPAREN, 639, 1, mozjs_sym_arguments, 1208, 1,
      mozjs_aux_sym_sequence_expression_repeat1, 5, 2, mozjs_sym_html_comment, mozjs_sym_comment,
      1600, 2, mozjs_anon_sym_PLUS_PLUS, mozjs_anon_sym_DASH_DASH, 1787, 2, mozjs_anon_sym_STAR,
      mozjs_anon_sym_SLASH, 1795, 2, mozjs_anon_sym_GT_GT_GT, mozjs_anon_sym_LT_LT, 1799, 2,
      mozjs_anon_sym_PLUS, mozjs_anon_sym_DASH, 1819, 2, mozjs_anon_sym_EQ_EQ,
      mozjs_anon_sym_BANG_EQ, 1821, 2, mozjs_anon_sym_EQ_EQ_EQ, mozjs_anon_sym_BANG_EQ_EQ, 1791,
      3, mozjs_anon_sym_in, mozjs_anon_sym_LT, mozjs_anon_sym_GT, 1805, 3, mozjs_anon_sym_LT_EQ,
      mozjs_anon_sym_GT_EQ, mozjs_anon_sym_instanceof]"

definition mozjs_small_run_30462 :: "nat list" where
  "mozjs_small_run_30462 =
    [27, 1578, 1, mozjs_anon_sym_LPAREN, 1580, 1, mozjs_anon_sym_LBRACK, 1582, 1,
      mozjs_anon_sym_DOT, 1594, 1, mozjs_sym_optional_chain, 1793, 1, mozjs_anon_sym_GT_GT, 1801,
      1, mozjs_anon_sym_PERCENT, 1803, 1, mozjs_anon_sym_STAR_STAR, 1809, 1,
      mozjs_anon_sym_AMP_AMP, 1811, 1, mozjs_anon_sym_PIPE_PIPE, 1813, 1, mozjs_anon_sym_AMP,
      1815, 1, mozjs_anon_sym_CARET, 1817, 1, mozjs_anon_sym_PIPE, 1823, 1,
      mozjs_anon_sym_QMARK_QMARK, 1825, 1, mozjs_sym__ternary_qmark, 1992, 1,
      mozjs_anon_sym_COMMA, 2022, 1, mozjs_anon_sym_RPAREN, 639, 1, mozjs_sym_arguments, 1208, 1,
      mozjs_aux_sym_sequence_expression_repeat1, 5, 2, mozjs_sym_html_comment, mozjs_sym_comment,
      1600, 2, mozjs_anon_sym_PLUS_PLUS, mozjs_anon_sym_DASH_DASH, 1787, 2, mozjs_anon_sym_STAR,
      mozjs_anon_sym_SLASH, 1795, 2, mozjs_anon_sym_GT_GT_GT, mozjs_anon_sym_LT_LT, 1799, 2,
      mozjs_anon_sym_PLUS, mozjs_anon_sym_DASH, 1819, 2, mozjs_anon_sym_EQ_EQ,
      mozjs_anon_sym_BANG_EQ, 1821, 2, mozjs_anon_sym_EQ_EQ_EQ, mozjs_anon_sym_BANG_EQ_EQ, 1791,
      3, mozjs_anon_sym_in, mozjs_anon_sym_LT, mozjs_anon_sym_GT, 1805, 3, mozjs_anon_sym_LT_EQ,
      mozjs_anon_sym_GT_EQ, mozjs_anon_sym_instanceof]"

definition mozjs_small_run_30555 :: "nat list" where
  "mozjs_small_run_30555 =
    [25, 1578, 1, mozjs_anon_sym_LPAREN, 1580, 1, mozjs_anon_sym_LBRACK, 1582, 1,
      mozjs_anon_sym_DOT, 1594, 1, mozjs_sym_optional_chain, 1793, 1, mozjs_anon_sym_GT_GT, 1801,
      1, mozjs_anon_sym_PERCENT, 1803, 1, mozjs_anon_sym_STAR_STAR, 1809, 1,
      mozjs_anon_sym_AMP_AMP, 1811, 1, mozjs_anon_sym_PIPE_PIPE, 1813, 1, mozjs_anon_sym_AMP,
      1815, 1, mozjs_anon_sym_CARET, 1817, 1, mozjs_anon_sym_PIPE, 1823, 1,
      mozjs_anon_sym_QMARK_QMARK, 1825, 1, mozjs_sym__ternary_qmark, 639, 1, mozjs_sym_arguments,
      5, 2, mozjs_sym_html_comment, mozjs_sym_comment, 1600, 2, mozjs_anon_sym_PLUS_PLUS,
      mozjs_anon_sym_DASH_DASH, 1787, 2, mozjs_anon_sym_STAR, mozjs_anon_sym_SLASH, 1795, 2,
      mozjs_anon_sym_GT_GT_GT, mozjs_anon_sym_LT_LT, 1799, 2, mozjs_anon_sym_PLUS,
      mozjs_anon_sym_DASH, 1819, 2, mozjs_anon_sym_EQ_EQ, mozjs_anon_sym_BANG_EQ, 1821, 2,
      mozjs_anon_sym_EQ_EQ_EQ, mozjs_anon_sym_BANG_EQ_EQ, 1791, 3, mozjs_anon_sym_in,
      mozjs_anon_sym_LT, mozjs_anon_sym_GT, 1805, 3, mozjs_anon_sym_LT_EQ, mozjs_anon_sym_GT_EQ,
      mozjs_anon_sym_instanceof, 2024, 3, mozjs_anon_sym_COMMA, mozjs_anon_sym_RPAREN,
      mozjs_anon_sym_RBRACK]"

definition mozjs_small_run_30644 :: "nat list" where
  "mozjs_small_run_30644 =
    [27, 1578, 1, mozjs_anon_sym_LPAREN, 1580, 1, mozjs_anon_sym_LBRACK, 1582, 1,
      mozjs_anon_sym_DOT, 1594, 1, mozjs_sym_optional_chain, 1793, 1, mozjs_anon_sym_GT_GT, 1801,
      1, mozjs_anon_sym_PERCENT, 1803, 1, mozjs_anon_sym_STAR_STAR, 1809, 1,
      mozjs_anon_sym_AMP_AMP, 1811, 1, mozjs_anon_sym_PIPE_PIPE, 1813, 1, mozjs_anon_sym_AMP,
      1815, 1, mozjs_anon_sym_CARET, 1817, 1, mozjs_anon_sym_PIPE, 1823, 1,
      mozjs_anon_sym_QMARK_QMARK, 1825, 1, mozjs_sym__ternary_qmark, 1992, 1,
      mozjs_anon_sym_COMMA, 2026, 1, mozjs_anon_sym_RBRACE, 639, 1, mozjs_sym_arguments, 1208, 1,
      mozjs_aux_sym_sequence_expression_repeat1, 5, 2, mozjs_sym_html_comment, mozjs_sym_comment,
      1600, 2, mozjs_anon_sym_PLUS_PLUS, mozjs_anon_sym_DASH_DASH, 1787, 2, mozjs_anon_sym_STAR,
      mozjs_anon_sym_SLASH, 1795, 2, mozjs_anon_sym_GT_GT_GT, mozjs_anon_sym_LT_LT, 1799, 2,
      mozjs_anon_sym_PLUS, mozjs_anon_sym_DASH, 1819, 2, mozjs_anon_sym_EQ_EQ,
      mozjs_anon_sym_BANG_EQ, 1821, 2, mozjs_anon_sym_EQ_EQ_EQ, mozjs_anon_sym_BANG_EQ_EQ, 1791,
      3, mozjs_anon_sym_in, mozjs_anon_sym_LT, mozjs_anon_sym_GT, 1805, 3, mozjs_anon_sym_LT_EQ,
      mozjs_anon_sym_GT_EQ, mozjs_anon_sym_instanceof]"

definition mozjs_small_run_30737 :: "nat list" where
  "mozjs_small_run_30737 =
    [27, 919, 1, mozjs_anon_sym_COMMA, 1578, 1, mozjs_anon_sym_LPAREN, 1580, 1,
      mozjs_anon_sym_LBRACK, 1582, 1, mozjs_anon_sym_DOT, 1594, 1, mozjs_sym_optional_chain,
      1793, 1, mozjs_anon_sym_GT_GT, 1801, 1, mozjs_anon_sym_PERCENT, 1803, 1,
      mozjs_anon_sym_STAR_STAR, 1809, 1, mozjs_anon_sym_AMP_AMP, 1811, 1,
      mozjs_anon_sym_PIPE_PIPE, 1813, 1, mozjs_anon_sym_AMP, 1815, 1, mozjs_anon_sym_CARET, 1817,
      1, mozjs_anon_sym_PIPE, 1823, 1, mozjs_anon_sym_QMARK_QMARK, 1825, 1,
      mozjs_sym__ternary_qmark, 2028, 1, mozjs_anon_sym_RPAREN, 639, 1, mozjs_sym_arguments,
      1450, 1, mozjs_aux_sym_array_repeat1, 5, 2, mozjs_sym_html_comment, mozjs_sym_comment,
      1600, 2, mozjs_anon_sym_PLUS_PLUS, mozjs_anon_sym_DASH_DASH, 1787, 2, mozjs_anon_sym_STAR,
      mozjs_anon_sym_SLASH, 1795, 2, mozjs_anon_sym_GT_GT_GT, mozjs_anon_sym_LT_LT, 1799, 2,
      mozjs_anon_sym_PLUS, mozjs_anon_sym_DASH, 1819, 2, mozjs_anon_sym_EQ_EQ,
      mozjs_anon_sym_BANG_EQ, 1821, 2, mozjs_anon_sym_EQ_EQ_EQ, mozjs_anon_sym_BANG_EQ_EQ, 1791,
      3, mozjs_anon_sym_in, mozjs_anon_sym_LT, mozjs_anon_sym_GT, 1805, 3, mozjs_anon_sym_LT_EQ,
      mozjs_anon_sym_GT_EQ, mozjs_anon_sym_instanceof]"

definition mozjs_small_run_30830 :: "nat list" where
  "mozjs_small_run_30830 =
    [25, 1827, 1, mozjs_anon_sym_LPAREN, 1829, 1, mozjs_anon_sym_LBRACK, 1831, 1,
      mozjs_anon_sym_DOT, 1845, 1, mozjs_sym_optional_chain, 1891, 1, mozjs_anon_sym_AMP_AMP,
      1893, 1, mozjs_anon_sym_PIPE_PIPE, 1895, 1, mozjs_anon_sym_GT_GT, 1899, 1,
      mozjs_anon_sym_AMP, 1901, 1, mozjs_anon_sym_CARET, 1903, 1, mozjs_anon_sym_PIPE, 1907, 1,
      mozjs_anon_sym_PERCENT, 1909, 1, mozjs_anon_sym_STAR_STAR, 1917, 1,
      mozjs_anon_sym_QMARK_QMARK, 1919, 1, mozjs_sym__ternary_qmark, 804, 1, mozjs_sym_arguments,
      5, 2, mozjs_sym_html_comment, mozjs_sym_comment, 1849, 2, mozjs_anon_sym_PLUS_PLUS,
      mozjs_anon_sym_DASH_DASH, 1887, 2, mozjs_anon_sym_STAR, mozjs_anon_sym_SLASH, 1897, 2,
      mozjs_anon_sym_GT_GT_GT, mozjs_anon_sym_LT_LT, 1905, 2, mozjs_anon_sym_PLUS,
      mozjs_anon_sym_DASH, 1913, 2, mozjs_anon_sym_EQ_EQ, mozjs_anon_sym_BANG_EQ, 1915, 2,
      mozjs_anon_sym_EQ_EQ_EQ, mozjs_anon_sym_BANG_EQ_EQ, 1847, 3,
      mozjs_sym__automatic_semicolon, mozjs_anon_sym_COMMA, mozjs_anon_sym_SEMI, 1889, 3,
      mozjs_anon_sym_in, mozjs_anon_sym_LT, mozjs_anon_sym_GT, 1911, 3, mozjs_anon_sym_LT_EQ,
      mozjs_anon_sym_GT_EQ, mozjs_anon_sym_instanceof]"

definition mozjs_small_run_30919 :: "nat list" where
  "mozjs_small_run_30919 =
    [27, 1578, 1, mozjs_anon_sym_LPAREN, 1580, 1, mozjs_anon_sym_LBRACK, 1582, 1,
      mozjs_anon_sym_DOT, 1594, 1, mozjs_sym_optional_chain, 1793, 1, mozjs_anon_sym_GT_GT, 1801,
      1, mozjs_anon_sym_PERCENT, 1803, 1, mozjs_anon_sym_STAR_STAR, 1809, 1,
      mozjs_anon_sym_AMP_AMP, 1811, 1, mozjs_anon_sym_PIPE_PIPE, 1813, 1, mozjs_anon_sym_AMP,
      1815, 1, mozjs_anon_sym_CARET, 1817, 1, mozjs_anon_sym_PIPE, 1823, 1,
      mozjs_anon_sym_QMARK_QMARK, 1825, 1, mozjs_sym__ternary_qmark, 1992, 1,
      mozjs_anon_sym_COMMA, 2030, 1, mozjs_anon_sym_RBRACK, 639, 1, mozjs_sym_arguments, 1208, 1,
      mozjs_aux_sym_sequence_expression_repeat1, 5, 2, mozjs_sym_html_comment, mozjs_sym_comment,
      1600, 2, mozjs_anon_sym_PLUS_PLUS, mozjs_anon_sym_DASH_DASH, 1787, 2, mozjs_anon_sym_STAR,
      mozjs_anon_sym_SLASH, 1795, 2, mozjs_anon_sym_GT_GT_GT, mozjs_anon_sym_LT_LT, 1799, 2,
      mozjs_anon_sym_PLUS, mozjs_anon_sym_DASH, 1819, 2, mozjs_anon_sym_EQ_EQ,
      mozjs_anon_sym_BANG_EQ, 1821, 2, mozjs_anon_sym_EQ_EQ_EQ, mozjs_anon_sym_BANG_EQ_EQ, 1791,
      3, mozjs_anon_sym_in, mozjs_anon_sym_LT, mozjs_anon_sym_GT, 1805, 3, mozjs_anon_sym_LT_EQ,
      mozjs_anon_sym_GT_EQ, mozjs_anon_sym_instanceof]"

definition mozjs_small_run_31012 :: "nat list" where
  "mozjs_small_run_31012 =
    [27, 1578, 1, mozjs_anon_sym_LPAREN, 1580, 1, mozjs_anon_sym_LBRACK, 1582, 1,
      mozjs_anon_sym_DOT, 1594, 1, mozjs_sym_optional_chain, 1793, 1, mozjs_anon_sym_GT_GT, 1801,
      1, mozjs_anon_sym_PERCENT, 1803, 1, mozjs_anon_sym_STAR_STAR, 1809, 1,
      mozjs_anon_sym_AMP_AMP, 1811, 1, mozjs_anon_sym_PIPE_PIPE, 1813, 1, mozjs_anon_sym_AMP,
      1815, 1, mozjs_anon_sym_CARET, 1817, 1, mozjs_anon_sym_PIPE, 1823, 1,
      mozjs_anon_sym_QMARK_QMARK, 1825, 1, mozjs_sym__ternary_qmark, 1992, 1,
      mozjs_anon_sym_COMMA, 2032, 1, mozjs_anon_sym_RBRACE, 639, 1, mozjs_sym_arguments, 1208, 1,
      mozjs_aux_sym_sequence_expression_repeat1, 5, 2, mozjs_sym_html_comment, mozjs_sym_comment,
      1600, 2, mozjs_anon_sym_PLUS_PLUS, mozjs_anon_sym_DASH_DASH, 1787, 2, mozjs_anon_sym_STAR,
      mozjs_anon_sym_SLASH, 1795, 2, mozjs_anon_sym_GT_GT_GT, mozjs_anon_sym_LT_LT, 1799, 2,
      mozjs_anon_sym_PLUS, mozjs_anon_sym_DASH, 1819, 2, mozjs_anon_sym_EQ_EQ,
      mozjs_anon_sym_BANG_EQ, 1821, 2, mozjs_anon_sym_EQ_EQ_EQ, mozjs_anon_sym_BANG_EQ_EQ, 1791,
      3, mozjs_anon_sym_in, mozjs_anon_sym_LT, mozjs_anon_sym_GT, 1805, 3, mozjs_anon_sym_LT_EQ,
      mozjs_anon_sym_GT_EQ, mozjs_anon_sym_instanceof]"

definition mozjs_small_run_31105 :: "nat list" where
  "mozjs_small_run_31105 =
    [6, 1533, 1, mozjs_anon_sym_COMMA, 1546, 1, mozjs_anon_sym_RBRACK, 1549, 1,
      mozjs_anon_sym_EQ, 5, 2, mozjs_sym_html_comment, mozjs_sym_comment, 1435, 12,
      mozjs_anon_sym_STAR, mozjs_anon_sym_in, mozjs_anon_sym_LT, mozjs_anon_sym_GT,
      mozjs_anon_sym_GT_GT, mozjs_anon_sym_AMP, mozjs_anon_sym_PIPE, mozjs_anon_sym_PLUS,
      mozjs_anon_sym_DASH, mozjs_anon_sym_SLASH, mozjs_anon_sym_EQ_EQ, mozjs_anon_sym_BANG_EQ,
      1437, 21, mozjs_sym__ternary_qmark, mozjs_anon_sym_LPAREN, mozjs_anon_sym_LBRACK,
      mozjs_anon_sym_DOT, mozjs_sym_optional_chain, mozjs_anon_sym_AMP_AMP,
      mozjs_anon_sym_PIPE_PIPE, mozjs_anon_sym_GT_GT_GT, mozjs_anon_sym_LT_LT,
      mozjs_anon_sym_CARET, mozjs_anon_sym_PERCENT, mozjs_anon_sym_STAR_STAR,
      mozjs_anon_sym_LT_EQ, mozjs_anon_sym_EQ_EQ_EQ, mozjs_anon_sym_BANG_EQ_EQ,
      mozjs_anon_sym_GT_EQ, mozjs_anon_sym_QMARK_QMARK, mozjs_anon_sym_instanceof,
      mozjs_anon_sym_PLUS_PLUS, mozjs_anon_sym_DASH_DASH, mozjs_anon_sym_BQUOTE]"

definition mozjs_small_run_31156 :: "nat list" where
  "mozjs_small_run_31156 =
    [25, 1827, 1, mozjs_anon_sym_LPAREN, 1829, 1, mozjs_anon_sym_LBRACK, 1831, 1,
      mozjs_anon_sym_DOT, 1845, 1, mozjs_sym_optional_chain, 1891, 1, mozjs_anon_sym_AMP_AMP,
      1893, 1, mozjs_anon_sym_PIPE_PIPE, 1895, 1, mozjs_anon_sym_GT_GT, 1899, 1,
      mozjs_anon_sym_AMP, 1901, 1, mozjs_anon_sym_CARET, 1903, 1, mozjs_anon_sym_PIPE, 1907, 1,
      mozjs_anon_sym_PERCENT, 1909, 1, mozjs_anon_sym_STAR_STAR, 1917, 1,
      mozjs_anon_sym_QMARK_QMARK, 1919, 1, mozjs_sym__ternary_qmark, 804, 1, mozjs_sym_arguments,
      5, 2, mozjs_sym_html_comment, mozjs_sym_comment, 1849, 2, mozjs_anon_sym_PLUS_PLUS,
      mozjs_anon_sym_DASH_DASH, 1887, 2, mozjs_anon_sym_STAR, mozjs_anon_sym_SLASH, 1897, 2,
      mozjs_anon_sym_GT_GT_GT, mozjs_anon_sym_LT_LT, 1905, 2, mozjs_anon_sym_PLUS,
      mozjs_anon_sym_DASH, 1913, 2, mozjs_anon_sym_EQ_EQ, mozjs_anon_sym_BANG_EQ, 1915, 2,
      mozjs_anon_sym_EQ_EQ_EQ, mozjs_anon_sym_BANG_EQ_EQ, 1889, 3, mozjs_anon_sym_in,
      mozjs_anon_sym_LT, mozjs_anon_sym_GT, 1911, 3, mozjs_anon_sym_LT_EQ, mozjs_anon_sym_GT_EQ,
      mozjs_anon_sym_instanceof, 1959, 3, mozjs_sym__automatic_semicolon, mozjs_anon_sym_COMMA,
      mozjs_anon_sym_SEMI]"

definition mozjs_small_run_31245 :: "nat list" where
  "mozjs_small_run_31245 =
    [6, 1774, 1, mozjs_anon_sym_RBRACK, 1777, 1, mozjs_anon_sym_EQ, 1921, 1,
      mozjs_anon_sym_COMMA, 5, 2, mozjs_sym_html_comment, mozjs_sym_comment, 1770, 12,
      mozjs_anon_sym_STAR, mozjs_anon_sym_in, mozjs_anon_sym_LT, mozjs_anon_sym_GT,
      mozjs_anon_sym_GT_GT, mozjs_anon_sym_AMP, mozjs_anon_sym_PIPE, mozjs_anon_sym_PLUS,
      mozjs_anon_sym_DASH, mozjs_anon_sym_SLASH, mozjs_anon_sym_EQ_EQ, mozjs_anon_sym_BANG_EQ,
      1772, 21, mozjs_sym__ternary_qmark, mozjs_anon_sym_LPAREN, mozjs_anon_sym_LBRACK,
      mozjs_anon_sym_DOT, mozjs_sym_optional_chain, mozjs_anon_sym_AMP_AMP,
      mozjs_anon_sym_PIPE_PIPE, mozjs_anon_sym_GT_GT_GT, mozjs_anon_sym_LT_LT,
      mozjs_anon_sym_CARET, mozjs_anon_sym_PERCENT, mozjs_anon_sym_STAR_STAR,
      mozjs_anon_sym_LT_EQ, mozjs_anon_sym_EQ_EQ_EQ, mozjs_anon_sym_BANG_EQ_EQ,
      mozjs_anon_sym_GT_EQ, mozjs_anon_sym_QMARK_QMARK, mozjs_anon_sym_instanceof,
      mozjs_anon_sym_PLUS_PLUS, mozjs_anon_sym_DASH_DASH, mozjs_anon_sym_BQUOTE]"

definition mozjs_small_run_31296 :: "nat list" where
  "mozjs_small_run_31296 =
    [6, 1636, 1, mozjs_anon_sym_RBRACK, 1639, 1, mozjs_anon_sym_EQ, 1923, 1,
      mozjs_anon_sym_COMMA, 5, 2, mozjs_sym_html_comment, mozjs_sym_comment, 1632, 12,
      mozjs_anon_sym_STAR, mozjs_anon_sym_in, mozjs_anon_sym_LT, mozjs_anon_sym_GT,
      mozjs_anon_sym_GT_GT, mozjs_anon_sym_AMP, mozjs_anon_sym_PIPE, mozjs_anon_sym_PLUS,
      mozjs_anon_sym_DASH, mozjs_anon_sym_SLASH, mozjs_anon_sym_EQ_EQ, mozjs_anon_sym_BANG_EQ,
      1634, 21, mozjs_sym__ternary_qmark, mozjs_anon_sym_LPAREN, mozjs_anon_sym_LBRACK,
      mozjs_anon_sym_DOT, mozjs_sym_optional_chain, mozjs_anon_sym_AMP_AMP,
      mozjs_anon_sym_PIPE_PIPE, mozjs_anon_sym_GT_GT_GT, mozjs_anon_sym_LT_LT,
      mozjs_anon_sym_CARET, mozjs_anon_sym_PERCENT, mozjs_anon_sym_STAR_STAR,
      mozjs_anon_sym_LT_EQ, mozjs_anon_sym_EQ_EQ_EQ, mozjs_anon_sym_BANG_EQ_EQ,
      mozjs_anon_sym_GT_EQ, mozjs_anon_sym_QMARK_QMARK, mozjs_anon_sym_instanceof,
      mozjs_anon_sym_PLUS_PLUS, mozjs_anon_sym_DASH_DASH, mozjs_anon_sym_BQUOTE]"

definition mozjs_small_run_31347 :: "nat list" where
  "mozjs_small_run_31347 =
    [6, 725, 1, mozjs_anon_sym_EQ, 1669, 1, mozjs_anon_sym_RBRACK, 1925, 1, mozjs_anon_sym_COMMA,
      5, 2, mozjs_sym_html_comment, mozjs_sym_comment, 721, 12, mozjs_anon_sym_STAR,
      mozjs_anon_sym_in, mozjs_anon_sym_LT, mozjs_anon_sym_GT, mozjs_anon_sym_GT_GT,
      mozjs_anon_sym_AMP, mozjs_anon_sym_PIPE, mozjs_anon_sym_PLUS, mozjs_anon_sym_DASH,
      mozjs_anon_sym_SLASH, mozjs_anon_sym_EQ_EQ, mozjs_anon_sym_BANG_EQ, 723, 21,
      mozjs_sym__ternary_qmark, mozjs_anon_sym_LPAREN, mozjs_anon_sym_LBRACK, mozjs_anon_sym_DOT,
      mozjs_sym_optional_chain, mozjs_anon_sym_AMP_AMP, mozjs_anon_sym_PIPE_PIPE,
      mozjs_anon_sym_GT_GT_GT, mozjs_anon_sym_LT_LT, mozjs_anon_sym_CARET,
      mozjs_anon_sym_PERCENT, mozjs_anon_sym_STAR_STAR, mozjs_anon_sym_LT_EQ,
      mozjs_anon_sym_EQ_EQ_EQ, mozjs_anon_sym_BANG_EQ_EQ, mozjs_anon_sym_GT_EQ,
      mozjs_anon_sym_QMARK_QMARK, mozjs_anon_sym_instanceof, mozjs_anon_sym_PLUS_PLUS,
      mozjs_anon_sym_DASH_DASH, mozjs_anon_sym_BQUOTE]"

definition mozjs_small_run_31398 :: "nat list" where
  "mozjs_small_run_31398 =
    [24, 93, 1, mozjs_anon_sym_AT, 103, 1, mozjs_anon_sym_STAR, 105, 1, mozjs_anon_sym_COMMA,
      117, 1, mozjs_anon_sym_DOT_DOT_DOT, 125, 1, mozjs_aux_sym_method_definition_token1, 1084,
      1, mozjs_anon_sym_DQUOTE, 1086, 1, mozjs_anon_sym_SQUOTE, 1978, 1, mozjs_anon_sym_LBRACE,
      1982, 1, mozjs_anon_sym_LBRACK, 2036, 1, mozjs_anon_sym_RBRACE, 2038, 1,
      mozjs_anon_sym_async, 2040, 1, mozjs_anon_sym_static, 1023, 1,
      mozjs_aux_sym_export_statement_repeat1, 1112, 1, mozjs_sym_decorator, 1425, 1,
      mozjs_aux_sym_object_repeat1, 1432, 1, mozjs_aux_sym_object_pattern_repeat1, 5, 2,
      mozjs_sym_html_comment, mozjs_sym_comment, 1986, 2, mozjs_sym_number,
      mozjs_sym_private_property_identifier, 2042, 2, mozjs_anon_sym_get, mozjs_anon_sym_set,
      1422, 3, mozjs_sym_spread_element, mozjs_sym_method_definition, mozjs_sym_pair, 1423, 3,
      mozjs_sym_object_assignment_pattern, mozjs_sym_rest_pattern, mozjs_sym_pair_pattern, 1428,
      3, mozjs_sym_string, mozjs_sym__property_name, mozjs_sym_computed_property_name, 1855, 3,
      mozjs_sym_object_pattern, mozjs_sym_array_pattern, mozjs_sym__destructuring_pattern, 2034,
      4, mozjs_anon_sym_export, mozjs_anon_sym_let, mozjs_anon_sym_await, mozjs_sym_identifier]"

definition mozjs_small_run_31485 :: "nat list" where
  "mozjs_small_run_31485 =
    [27, 1578, 1, mozjs_anon_sym_LPAREN, 1580, 1, mozjs_anon_sym_LBRACK, 1582, 1,
      mozjs_anon_sym_DOT, 1594, 1, mozjs_sym_optional_chain, 1793, 1, mozjs_anon_sym_GT_GT, 1801,
      1, mozjs_anon_sym_PERCENT, 1803, 1, mozjs_anon_sym_STAR_STAR, 1809, 1,
      mozjs_anon_sym_AMP_AMP, 1811, 1, mozjs_anon_sym_PIPE_PIPE, 1813, 1, mozjs_anon_sym_AMP,
      1815, 1, mozjs_anon_sym_CARET, 1817, 1, mozjs_anon_sym_PIPE, 1823, 1,
      mozjs_anon_sym_QMARK_QMARK, 1825, 1, mozjs_sym__ternary_qmark, 1992, 1,
      mozjs_anon_sym_COMMA, 2044, 1, mozjs_anon_sym_RPAREN, 639, 1, mozjs_sym_arguments, 1208, 1,
      mozjs_aux_sym_sequence_expression_repeat1, 5, 2, mozjs_sym_html_comment, mozjs_sym_comment,
      1600, 2, mozjs_anon_sym_PLUS_PLUS, mozjs_anon_sym_DASH_DASH, 1787, 2, mozjs_anon_sym_STAR,
      mozjs_anon_sym_SLASH, 1795, 2, mozjs_anon_sym_GT_GT_GT, mozjs_anon_sym_LT_LT, 1799, 2,
      mozjs_anon_sym_PLUS, mozjs_anon_sym_DASH, 1819, 2, mozjs_anon_sym_EQ_EQ,
      mozjs_anon_sym_BANG_EQ, 1821, 2, mozjs_anon_sym_EQ_EQ_EQ, mozjs_anon_sym_BANG_EQ_EQ, 1791,
      3, mozjs_anon_sym_in, mozjs_anon_sym_LT, mozjs_anon_sym_GT, 1805, 3, mozjs_anon_sym_LT_EQ,
      mozjs_anon_sym_GT_EQ, mozjs_anon_sym_instanceof]"

definition mozjs_small_run_31578 :: "nat list" where
  "mozjs_small_run_31578 =
    [27, 919, 1, mozjs_anon_sym_COMMA, 1578, 1, mozjs_anon_sym_LPAREN, 1580, 1,
      mozjs_anon_sym_LBRACK, 1582, 1, mozjs_anon_sym_DOT, 1594, 1, mozjs_sym_optional_chain,
      1793, 1, mozjs_anon_sym_GT_GT, 1801, 1, mozjs_anon_sym_PERCENT, 1803, 1,
      mozjs_anon_sym_STAR_STAR, 1809, 1, mozjs_anon_sym_AMP_AMP, 1811, 1,
      mozjs_anon_sym_PIPE_PIPE, 1813, 1, mozjs_anon_sym_AMP, 1815, 1, mozjs_anon_sym_CARET, 1817,
      1, mozjs_anon_sym_PIPE, 1823, 1, mozjs_anon_sym_QMARK_QMARK, 1825, 1,
      mozjs_sym__ternary_qmark, 2046, 1, mozjs_anon_sym_RBRACK, 639, 1, mozjs_sym_arguments,
      1451, 1, mozjs_aux_sym_array_repeat1, 5, 2, mozjs_sym_html_comment, mozjs_sym_comment,
      1600, 2, mozjs_anon_sym_PLUS_PLUS, mozjs_anon_sym_DASH_DASH, 1787, 2, mozjs_anon_sym_STAR,
      mozjs_anon_sym_SLASH, 1795, 2, mozjs_anon_sym_GT_GT_GT, mozjs_anon_sym_LT_LT, 1799, 2,
      mozjs_anon_sym_PLUS, mozjs_anon_sym_DASH, 1819, 2, mozjs_anon_sym_EQ_EQ,
      mozjs_anon_sym_BANG_EQ, 1821, 2, mozjs_anon_sym_EQ_EQ_EQ, mozjs_anon_sym_BANG_EQ_EQ, 1791,
      3, mozjs_anon_sym_in, mozjs_anon_sym_LT, mozjs_anon_sym_GT, 1805, 3, mozjs_anon_sym_LT_EQ,
      mozjs_anon_sym_GT_EQ, mozjs_anon_sym_instanceof]"

definition mozjs_small_run_31671 :: "nat list" where
  "mozjs_small_run_31671 =
    [27, 919, 1, mozjs_anon_sym_COMMA, 1578, 1, mozjs_anon_sym_LPAREN, 1580, 1,
      mozjs_anon_sym_LBRACK, 1582, 1, mozjs_anon_sym_DOT, 1594, 1, mozjs_sym_optional_chain,
      1793, 1, mozjs_anon_sym_GT_GT, 1801, 1, mozjs_anon_sym_PERCENT, 1803, 1,
      mozjs_anon_sym_STAR_STAR, 1809, 1, mozjs_anon_sym_AMP_AMP, 1811, 1,
      mozjs_anon_sym_PIPE_PIPE, 1813, 1, mozjs_anon_sym_AMP, 1815, 1, mozjs_anon_sym_CARET, 1817,
      1, mozjs_anon_sym_PIPE, 1823, 1, mozjs_anon_sym_QMARK_QMARK, 1825, 1,
      mozjs_sym__ternary_qmark, 2048, 1, mozjs_anon_sym_RPAREN, 639, 1, mozjs_sym_arguments,
      1475, 1, mozjs_aux_sym_array_repeat1, 5, 2, mozjs_sym_html_comment, mozjs_sym_comment,
      1600, 2, mozjs_anon_sym_PLUS_PLUS, mozjs_anon_sym_DASH_DASH, 1787, 2, mozjs_anon_sym_STAR,
      mozjs_anon_sym_SLASH, 1795, 2, mozjs_anon_sym_GT_GT_GT, mozjs_anon_sym_LT_LT, 1799, 2,
      mozjs_anon_sym_PLUS, mozjs_anon_sym_DASH, 1819, 2, mozjs_anon_sym_EQ_EQ,
      mozjs_anon_sym_BANG_EQ, 1821, 2, mozjs_anon_sym_EQ_EQ_EQ, mozjs_anon_sym_BANG_EQ_EQ, 1791,
      3, mozjs_anon_sym_in, mozjs_anon_sym_LT, mozjs_anon_sym_GT, 1805, 3, mozjs_anon_sym_LT_EQ,
      mozjs_anon_sym_GT_EQ, mozjs_anon_sym_instanceof]"

definition mozjs_small_run_31764 :: "nat list" where
  "mozjs_small_run_31764 =
    [27, 1578, 1, mozjs_anon_sym_LPAREN, 1580, 1, mozjs_anon_sym_LBRACK, 1582, 1,
      mozjs_anon_sym_DOT, 1594, 1, mozjs_sym_optional_chain, 1793, 1, mozjs_anon_sym_GT_GT, 1801,
      1, mozjs_anon_sym_PERCENT, 1803, 1, mozjs_anon_sym_STAR_STAR, 1809, 1,
      mozjs_anon_sym_AMP_AMP, 1811, 1, mozjs_anon_sym_PIPE_PIPE, 1813, 1, mozjs_anon_sym_AMP,
      1815, 1, mozjs_anon_sym_CARET, 1817, 1, mozjs_anon_sym_PIPE, 1823, 1,
      mozjs_anon_sym_QMARK_QMARK, 1825, 1, mozjs_sym__ternary_qmark, 1992, 1,
      mozjs_anon_sym_COMMA, 2050, 1, mozjs_anon_sym_RBRACK, 639, 1, mozjs_sym_arguments, 1208, 1,
      mozjs_aux_sym_sequence_expression_repeat1, 5, 2, mozjs_sym_html_comment, mozjs_sym_comment,
      1600, 2, mozjs_anon_sym_PLUS_PLUS, mozjs_anon_sym_DASH_DASH, 1787, 2, mozjs_anon_sym_STAR,
      mozjs_anon_sym_SLASH, 1795, 2, mozjs_anon_sym_GT_GT_GT, mozjs_anon_sym_LT_LT, 1799, 2,
      mozjs_anon_sym_PLUS, mozjs_anon_sym_DASH, 1819, 2, mozjs_anon_sym_EQ_EQ,
      mozjs_anon_sym_BANG_EQ, 1821, 2, mozjs_anon_sym_EQ_EQ_EQ, mozjs_anon_sym_BANG_EQ_EQ, 1791,
      3, mozjs_anon_sym_in, mozjs_anon_sym_LT, mozjs_anon_sym_GT, 1805, 3, mozjs_anon_sym_LT_EQ,
      mozjs_anon_sym_GT_EQ, mozjs_anon_sym_instanceof]"

definition mozjs_small_run_31857 :: "nat list" where
  "mozjs_small_run_31857 =
    [27, 1578, 1, mozjs_anon_sym_LPAREN, 1580, 1, mozjs_anon_sym_LBRACK, 1582, 1,
      mozjs_anon_sym_DOT, 1594, 1, mozjs_sym_optional_chain, 1793, 1, mozjs_anon_sym_GT_GT, 1801,
      1, mozjs_anon_sym_PERCENT, 1803, 1, mozjs_anon_sym_STAR_STAR, 1809, 1,
      mozjs_anon_sym_AMP_AMP, 1811, 1, mozjs_anon_sym_PIPE_PIPE, 1813, 1, mozjs_anon_sym_AMP,
      1815, 1, mozjs_anon_sym_CARET, 1817, 1, mozjs_anon_sym_PIPE, 1823, 1,
      mozjs_anon_sym_QMARK_QMARK, 1825, 1, mozjs_sym__ternary_qmark, 1992, 1,
      mozjs_anon_sym_COMMA, 2052, 1, mozjs_anon_sym_RBRACE, 639, 1, mozjs_sym_arguments, 1208, 1,
      mozjs_aux_sym_sequence_expression_repeat1, 5, 2, mozjs_sym_html_comment, mozjs_sym_comment,
      1600, 2, mozjs_anon_sym_PLUS_PLUS, mozjs_anon_sym_DASH_DASH, 1787, 2, mozjs_anon_sym_STAR,
      mozjs_anon_sym_SLASH, 1795, 2, mozjs_anon_sym_GT_GT_GT, mozjs_anon_sym_LT_LT, 1799, 2,
      mozjs_anon_sym_PLUS, mozjs_anon_sym_DASH, 1819, 2, mozjs_anon_sym_EQ_EQ,
      mozjs_anon_sym_BANG_EQ, 1821, 2, mozjs_anon_sym_EQ_EQ_EQ, mozjs_anon_sym_BANG_EQ_EQ, 1791,
      3, mozjs_anon_sym_in, mozjs_anon_sym_LT, mozjs_anon_sym_GT, 1805, 3, mozjs_anon_sym_LT_EQ,
      mozjs_anon_sym_GT_EQ, mozjs_anon_sym_instanceof]"

definition mozjs_small_run_31950 :: "nat list" where
  "mozjs_small_run_31950 =
    [27, 1578, 1, mozjs_anon_sym_LPAREN, 1580, 1, mozjs_anon_sym_LBRACK, 1582, 1,
      mozjs_anon_sym_DOT, 1594, 1, mozjs_sym_optional_chain, 1793, 1, mozjs_anon_sym_GT_GT, 1801,
      1, mozjs_anon_sym_PERCENT, 1803, 1, mozjs_anon_sym_STAR_STAR, 1809, 1,
      mozjs_anon_sym_AMP_AMP, 1811, 1, mozjs_anon_sym_PIPE_PIPE, 1813, 1, mozjs_anon_sym_AMP,
      1815, 1, mozjs_anon_sym_CARET, 1817, 1, mozjs_anon_sym_PIPE, 1823, 1,
      mozjs_anon_sym_QMARK_QMARK, 1825, 1, mozjs_sym__ternary_qmark, 1992, 1,
      mozjs_anon_sym_COMMA, 2054, 1, mozjs_anon_sym_RBRACK, 639, 1, mozjs_sym_arguments, 1208, 1,
      mozjs_aux_sym_sequence_expression_repeat1, 5, 2, mozjs_sym_html_comment, mozjs_sym_comment,
      1600, 2, mozjs_anon_sym_PLUS_PLUS, mozjs_anon_sym_DASH_DASH, 1787, 2, mozjs_anon_sym_STAR,
      mozjs_anon_sym_SLASH, 1795, 2, mozjs_anon_sym_GT_GT_GT, mozjs_anon_sym_LT_LT, 1799, 2,
      mozjs_anon_sym_PLUS, mozjs_anon_sym_DASH, 1819, 2, mozjs_anon_sym_EQ_EQ,
      mozjs_anon_sym_BANG_EQ, 1821, 2, mozjs_anon_sym_EQ_EQ_EQ, mozjs_anon_sym_BANG_EQ_EQ, 1791,
      3, mozjs_anon_sym_in, mozjs_anon_sym_LT, mozjs_anon_sym_GT, 1805, 3, mozjs_anon_sym_LT_EQ,
      mozjs_anon_sym_GT_EQ, mozjs_anon_sym_instanceof]"

definition mozjs_small_run_32043 :: "nat list" where
  "mozjs_small_run_32043 =
    [27, 1578, 1, mozjs_anon_sym_LPAREN, 1580, 1, mozjs_anon_sym_LBRACK, 1582, 1,
      mozjs_anon_sym_DOT, 1594, 1, mozjs_sym_optional_chain, 1793, 1, mozjs_anon_sym_GT_GT, 1801,
      1, mozjs_anon_sym_PERCENT, 1803, 1, mozjs_anon_sym_STAR_STAR, 1809, 1,
      mozjs_anon_sym_AMP_AMP, 1811, 1, mozjs_anon_sym_PIPE_PIPE, 1813, 1, mozjs_anon_sym_AMP,
      1815, 1, mozjs_anon_sym_CARET, 1817, 1, mozjs_anon_sym_PIPE, 1823, 1,
      mozjs_anon_sym_QMARK_QMARK, 1825, 1, mozjs_sym__ternary_qmark, 1992, 1,
      mozjs_anon_sym_COMMA, 2056, 1, mozjs_anon_sym_SEMI, 639, 1, mozjs_sym_arguments, 1208, 1,
      mozjs_aux_sym_sequence_expression_repeat1, 5, 2, mozjs_sym_html_comment, mozjs_sym_comment,
      1600, 2, mozjs_anon_sym_PLUS_PLUS, mozjs_anon_sym_DASH_DASH, 1787, 2, mozjs_anon_sym_STAR,
      mozjs_anon_sym_SLASH, 1795, 2, mozjs_anon_sym_GT_GT_GT, mozjs_anon_sym_LT_LT, 1799, 2,
      mozjs_anon_sym_PLUS, mozjs_anon_sym_DASH, 1819, 2, mozjs_anon_sym_EQ_EQ,
      mozjs_anon_sym_BANG_EQ, 1821, 2, mozjs_anon_sym_EQ_EQ_EQ, mozjs_anon_sym_BANG_EQ_EQ, 1791,
      3, mozjs_anon_sym_in, mozjs_anon_sym_LT, mozjs_anon_sym_GT, 1805, 3, mozjs_anon_sym_LT_EQ,
      mozjs_anon_sym_GT_EQ, mozjs_anon_sym_instanceof]"

definition mozjs_small_run_32136 :: "nat list" where
  "mozjs_small_run_32136 =
    [24, 93, 1, mozjs_anon_sym_AT, 103, 1, mozjs_anon_sym_STAR, 105, 1, mozjs_anon_sym_COMMA,
      117, 1, mozjs_anon_sym_DOT_DOT_DOT, 125, 1, mozjs_aux_sym_method_definition_token1, 1084,
      1, mozjs_anon_sym_DQUOTE, 1086, 1, mozjs_anon_sym_SQUOTE, 1978, 1, mozjs_anon_sym_LBRACE,
      1982, 1, mozjs_anon_sym_LBRACK, 2060, 1, mozjs_anon_sym_RBRACE, 2062, 1,
      mozjs_anon_sym_async, 2064, 1, mozjs_anon_sym_static, 1023, 1,
      mozjs_aux_sym_export_statement_repeat1, 1112, 1, mozjs_sym_decorator, 1425, 1,
      mozjs_aux_sym_object_repeat1, 1432, 1, mozjs_aux_sym_object_pattern_repeat1, 5, 2,
      mozjs_sym_html_comment, mozjs_sym_comment, 1986, 2, mozjs_sym_number,
      mozjs_sym_private_property_identifier, 2066, 2, mozjs_anon_sym_get, mozjs_anon_sym_set,
      1422, 3, mozjs_sym_spread_element, mozjs_sym_method_definition, mozjs_sym_pair, 1423, 3,
      mozjs_sym_object_assignment_pattern, mozjs_sym_rest_pattern, mozjs_sym_pair_pattern, 1428,
      3, mozjs_sym_string, mozjs_sym__property_name, mozjs_sym_computed_property_name, 1855, 3,
      mozjs_sym_object_pattern, mozjs_sym_array_pattern, mozjs_sym__destructuring_pattern, 2058,
      4, mozjs_anon_sym_export, mozjs_anon_sym_let, mozjs_anon_sym_await, mozjs_sym_identifier]"

definition mozjs_small_run_32223 :: "nat list" where
  "mozjs_small_run_32223 =
    [27, 1578, 1, mozjs_anon_sym_LPAREN, 1580, 1, mozjs_anon_sym_LBRACK, 1582, 1,
      mozjs_anon_sym_DOT, 1594, 1, mozjs_sym_optional_chain, 1793, 1, mozjs_anon_sym_GT_GT, 1801,
      1, mozjs_anon_sym_PERCENT, 1803, 1, mozjs_anon_sym_STAR_STAR, 1809, 1,
      mozjs_anon_sym_AMP_AMP, 1811, 1, mozjs_anon_sym_PIPE_PIPE, 1813, 1, mozjs_anon_sym_AMP,
      1815, 1, mozjs_anon_sym_CARET, 1817, 1, mozjs_anon_sym_PIPE, 1823, 1,
      mozjs_anon_sym_QMARK_QMARK, 1825, 1, mozjs_sym__ternary_qmark, 1992, 1,
      mozjs_anon_sym_COMMA, 2068, 1, mozjs_anon_sym_RPAREN, 639, 1, mozjs_sym_arguments, 1208, 1,
      mozjs_aux_sym_sequence_expression_repeat1, 5, 2, mozjs_sym_html_comment, mozjs_sym_comment,
      1600, 2, mozjs_anon_sym_PLUS_PLUS, mozjs_anon_sym_DASH_DASH, 1787, 2, mozjs_anon_sym_STAR,
      mozjs_anon_sym_SLASH, 1795, 2, mozjs_anon_sym_GT_GT_GT, mozjs_anon_sym_LT_LT, 1799, 2,
      mozjs_anon_sym_PLUS, mozjs_anon_sym_DASH, 1819, 2, mozjs_anon_sym_EQ_EQ,
      mozjs_anon_sym_BANG_EQ, 1821, 2, mozjs_anon_sym_EQ_EQ_EQ, mozjs_anon_sym_BANG_EQ_EQ, 1791,
      3, mozjs_anon_sym_in, mozjs_anon_sym_LT, mozjs_anon_sym_GT, 1805, 3, mozjs_anon_sym_LT_EQ,
      mozjs_anon_sym_GT_EQ, mozjs_anon_sym_instanceof]"

definition mozjs_small_run_32316 :: "nat list" where
  "mozjs_small_run_32316 =
    [27, 919, 1, mozjs_anon_sym_COMMA, 1578, 1, mozjs_anon_sym_LPAREN, 1580, 1,
      mozjs_anon_sym_LBRACK, 1582, 1, mozjs_anon_sym_DOT, 1594, 1, mozjs_sym_optional_chain,
      1793, 1, mozjs_anon_sym_GT_GT, 1801, 1, mozjs_anon_sym_PERCENT, 1803, 1,
      mozjs_anon_sym_STAR_STAR, 1809, 1, mozjs_anon_sym_AMP_AMP, 1811, 1,
      mozjs_anon_sym_PIPE_PIPE, 1813, 1, mozjs_anon_sym_AMP, 1815, 1, mozjs_anon_sym_CARET, 1817,
      1, mozjs_anon_sym_PIPE, 1823, 1, mozjs_anon_sym_QMARK_QMARK, 1825, 1,
      mozjs_sym__ternary_qmark, 2070, 1, mozjs_anon_sym_RPAREN, 639, 1, mozjs_sym_arguments,
      1441, 1, mozjs_aux_sym_array_repeat1, 5, 2, mozjs_sym_html_comment, mozjs_sym_comment,
      1600, 2, mozjs_anon_sym_PLUS_PLUS, mozjs_anon_sym_DASH_DASH, 1787, 2, mozjs_anon_sym_STAR,
      mozjs_anon_sym_SLASH, 1795, 2, mozjs_anon_sym_GT_GT_GT, mozjs_anon_sym_LT_LT, 1799, 2,
      mozjs_anon_sym_PLUS, mozjs_anon_sym_DASH, 1819, 2, mozjs_anon_sym_EQ_EQ,
      mozjs_anon_sym_BANG_EQ, 1821, 2, mozjs_anon_sym_EQ_EQ_EQ, mozjs_anon_sym_BANG_EQ_EQ, 1791,
      3, mozjs_anon_sym_in, mozjs_anon_sym_LT, mozjs_anon_sym_GT, 1805, 3, mozjs_anon_sym_LT_EQ,
      mozjs_anon_sym_GT_EQ, mozjs_anon_sym_instanceof]"

definition mozjs_small_run_32409 :: "nat list" where
  "mozjs_small_run_32409 =
    [24, 93, 1, mozjs_anon_sym_AT, 103, 1, mozjs_anon_sym_STAR, 105, 1, mozjs_anon_sym_COMMA,
      117, 1, mozjs_anon_sym_DOT_DOT_DOT, 125, 1, mozjs_aux_sym_method_definition_token1, 1084,
      1, mozjs_anon_sym_DQUOTE, 1086, 1, mozjs_anon_sym_SQUOTE, 1978, 1, mozjs_anon_sym_LBRACE,
      1982, 1, mozjs_anon_sym_LBRACK, 2074, 1, mozjs_anon_sym_RBRACE, 2076, 1,
      mozjs_anon_sym_async, 2078, 1, mozjs_anon_sym_static, 1023, 1,
      mozjs_aux_sym_export_statement_repeat1, 1112, 1, mozjs_sym_decorator, 1425, 1,
      mozjs_aux_sym_object_repeat1, 1432, 1, mozjs_aux_sym_object_pattern_repeat1, 5, 2,
      mozjs_sym_html_comment, mozjs_sym_comment, 1986, 2, mozjs_sym_number,
      mozjs_sym_private_property_identifier, 2080, 2, mozjs_anon_sym_get, mozjs_anon_sym_set,
      1422, 3, mozjs_sym_spread_element, mozjs_sym_method_definition, mozjs_sym_pair, 1423, 3,
      mozjs_sym_object_assignment_pattern, mozjs_sym_rest_pattern, mozjs_sym_pair_pattern, 1428,
      3, mozjs_sym_string, mozjs_sym__property_name, mozjs_sym_computed_property_name, 1855, 3,
      mozjs_sym_object_pattern, mozjs_sym_array_pattern, mozjs_sym__destructuring_pattern, 2072,
      4, mozjs_anon_sym_export, mozjs_anon_sym_let, mozjs_anon_sym_await, mozjs_sym_identifier]"

definition mozjs_small_run_32496 :: "nat list" where
  "mozjs_small_run_32496 =
    [27, 1578, 1, mozjs_anon_sym_LPAREN, 1580, 1, mozjs_anon_sym_LBRACK, 1582, 1,
      mozjs_anon_sym_DOT, 1594, 1, mozjs_sym_optional_chain, 1793, 1, mozjs_anon_sym_GT_GT, 1801,
      1, mozjs_anon_sym_PERCENT, 1803, 1, mozjs_anon_sym_STAR_STAR, 1809, 1,
      mozjs_anon_sym_AMP_AMP, 1811, 1, mozjs_anon_sym_PIPE_PIPE, 1813, 1, mozjs_anon_sym_AMP,
      1815, 1, mozjs_anon_sym_CARET, 1817, 1, mozjs_anon_sym_PIPE, 1823, 1,
      mozjs_anon_sym_QMARK_QMARK, 1825, 1, mozjs_sym__ternary_qmark, 1992, 1,
      mozjs_anon_sym_COMMA, 2082, 1, mozjs_anon_sym_RPAREN, 639, 1, mozjs_sym_arguments, 1208, 1,
      mozjs_aux_sym_sequence_expression_repeat1, 5, 2, mozjs_sym_html_comment, mozjs_sym_comment,
      1600, 2, mozjs_anon_sym_PLUS_PLUS, mozjs_anon_sym_DASH_DASH, 1787, 2, mozjs_anon_sym_STAR,
      mozjs_anon_sym_SLASH, 1795, 2, mozjs_anon_sym_GT_GT_GT, mozjs_anon_sym_LT_LT, 1799, 2,
      mozjs_anon_sym_PLUS, mozjs_anon_sym_DASH, 1819, 2, mozjs_anon_sym_EQ_EQ,
      mozjs_anon_sym_BANG_EQ, 1821, 2, mozjs_anon_sym_EQ_EQ_EQ, mozjs_anon_sym_BANG_EQ_EQ, 1791,
      3, mozjs_anon_sym_in, mozjs_anon_sym_LT, mozjs_anon_sym_GT, 1805, 3, mozjs_anon_sym_LT_EQ,
      mozjs_anon_sym_GT_EQ, mozjs_anon_sym_instanceof]"

definition mozjs_small_run_32589 :: "nat list" where
  "mozjs_small_run_32589 =
    [24, 93, 1, mozjs_anon_sym_AT, 103, 1, mozjs_anon_sym_STAR, 105, 1, mozjs_anon_sym_COMMA,
      117, 1, mozjs_anon_sym_DOT_DOT_DOT, 125, 1, mozjs_aux_sym_method_definition_token1, 1084,
      1, mozjs_anon_sym_DQUOTE, 1086, 1, mozjs_anon_sym_SQUOTE, 1978, 1, mozjs_anon_sym_LBRACE,
      1982, 1, mozjs_anon_sym_LBRACK, 2086, 1, mozjs_anon_sym_RBRACE, 2088, 1,
      mozjs_anon_sym_async, 2090, 1, mozjs_anon_sym_static, 1023, 1,
      mozjs_aux_sym_export_statement_repeat1, 1112, 1, mozjs_sym_decorator, 1425, 1,
      mozjs_aux_sym_object_repeat1, 1432, 1, mozjs_aux_sym_object_pattern_repeat1, 5, 2,
      mozjs_sym_html_comment, mozjs_sym_comment, 1986, 2, mozjs_sym_number,
      mozjs_sym_private_property_identifier, 2092, 2, mozjs_anon_sym_get, mozjs_anon_sym_set,
      1422, 3, mozjs_sym_spread_element, mozjs_sym_method_definition, mozjs_sym_pair, 1423, 3,
      mozjs_sym_object_assignment_pattern, mozjs_sym_rest_pattern, mozjs_sym_pair_pattern, 1428,
      3, mozjs_sym_string, mozjs_sym__property_name, mozjs_sym_computed_property_name, 1855, 3,
      mozjs_sym_object_pattern, mozjs_sym_array_pattern, mozjs_sym__destructuring_pattern, 2084,
      4, mozjs_anon_sym_export, mozjs_anon_sym_let, mozjs_anon_sym_await, mozjs_sym_identifier]"

definition mozjs_small_run_32676 :: "nat list" where
  "mozjs_small_run_32676 =
    [27, 919, 1, mozjs_anon_sym_COMMA, 1578, 1, mozjs_anon_sym_LPAREN, 1580, 1,
      mozjs_anon_sym_LBRACK, 1582, 1, mozjs_anon_sym_DOT, 1594, 1, mozjs_sym_optional_chain,
      1793, 1, mozjs_anon_sym_GT_GT, 1801, 1, mozjs_anon_sym_PERCENT, 1803, 1,
      mozjs_anon_sym_STAR_STAR, 1809, 1, mozjs_anon_sym_AMP_AMP, 1811, 1,
      mozjs_anon_sym_PIPE_PIPE, 1813, 1, mozjs_anon_sym_AMP, 1815, 1, mozjs_anon_sym_CARET, 1817,
      1, mozjs_anon_sym_PIPE, 1823, 1, mozjs_anon_sym_QMARK_QMARK, 1825, 1,
      mozjs_sym__ternary_qmark, 2094, 1, mozjs_anon_sym_RBRACK, 639, 1, mozjs_sym_arguments,
      1495, 1, mozjs_aux_sym_array_repeat1, 5, 2, mozjs_sym_html_comment, mozjs_sym_comment,
      1600, 2, mozjs_anon_sym_PLUS_PLUS, mozjs_anon_sym_DASH_DASH, 1787, 2, mozjs_anon_sym_STAR,
      mozjs_anon_sym_SLASH, 1795, 2, mozjs_anon_sym_GT_GT_GT, mozjs_anon_sym_LT_LT, 1799, 2,
      mozjs_anon_sym_PLUS, mozjs_anon_sym_DASH, 1819, 2, mozjs_anon_sym_EQ_EQ,
      mozjs_anon_sym_BANG_EQ, 1821, 2, mozjs_anon_sym_EQ_EQ_EQ, mozjs_anon_sym_BANG_EQ_EQ, 1791,
      3, mozjs_anon_sym_in, mozjs_anon_sym_LT, mozjs_anon_sym_GT, 1805, 3, mozjs_anon_sym_LT_EQ,
      mozjs_anon_sym_GT_EQ, mozjs_anon_sym_instanceof]"

definition mozjs_small_run_32769 :: "nat list" where
  "mozjs_small_run_32769 =
    [24, 93, 1, mozjs_anon_sym_AT, 103, 1, mozjs_anon_sym_STAR, 105, 1, mozjs_anon_sym_COMMA,
      117, 1, mozjs_anon_sym_DOT_DOT_DOT, 125, 1, mozjs_aux_sym_method_definition_token1, 1084,
      1, mozjs_anon_sym_DQUOTE, 1086, 1, mozjs_anon_sym_SQUOTE, 1978, 1, mozjs_anon_sym_LBRACE,
      1982, 1, mozjs_anon_sym_LBRACK, 2098, 1, mozjs_anon_sym_RBRACE, 2100, 1,
      mozjs_anon_sym_async, 2102, 1, mozjs_anon_sym_static, 1023, 1,
      mozjs_aux_sym_export_statement_repeat1, 1112, 1, mozjs_sym_decorator, 1425, 1,
      mozjs_aux_sym_object_repeat1, 1432, 1, mozjs_aux_sym_object_pattern_repeat1, 5, 2,
      mozjs_sym_html_comment, mozjs_sym_comment, 1986, 2, mozjs_sym_number,
      mozjs_sym_private_property_identifier, 2104, 2, mozjs_anon_sym_get, mozjs_anon_sym_set,
      1422, 3, mozjs_sym_spread_element, mozjs_sym_method_definition, mozjs_sym_pair, 1423, 3,
      mozjs_sym_object_assignment_pattern, mozjs_sym_rest_pattern, mozjs_sym_pair_pattern, 1428,
      3, mozjs_sym_string, mozjs_sym__property_name, mozjs_sym_computed_property_name, 1855, 3,
      mozjs_sym_object_pattern, mozjs_sym_array_pattern, mozjs_sym__destructuring_pattern, 2096,
      4, mozjs_anon_sym_export, mozjs_anon_sym_let, mozjs_anon_sym_await, mozjs_sym_identifier]"

definition mozjs_small_run_32856 :: "nat list" where
  "mozjs_small_run_32856 =
    [27, 1578, 1, mozjs_anon_sym_LPAREN, 1580, 1, mozjs_anon_sym_LBRACK, 1582, 1,
      mozjs_anon_sym_DOT, 1594, 1, mozjs_sym_optional_chain, 1793, 1, mozjs_anon_sym_GT_GT, 1801,
      1, mozjs_anon_sym_PERCENT, 1803, 1, mozjs_anon_sym_STAR_STAR, 1809, 1,
      mozjs_anon_sym_AMP_AMP, 1811, 1, mozjs_anon_sym_PIPE_PIPE, 1813, 1, mozjs_anon_sym_AMP,
      1815, 1, mozjs_anon_sym_CARET, 1817, 1, mozjs_anon_sym_PIPE, 1823, 1,
      mozjs_anon_sym_QMARK_QMARK, 1825, 1, mozjs_sym__ternary_qmark, 1992, 1,
      mozjs_anon_sym_COMMA, 2106, 1, mozjs_anon_sym_RBRACK, 639, 1, mozjs_sym_arguments, 1208, 1,
      mozjs_aux_sym_sequence_expression_repeat1, 5, 2, mozjs_sym_html_comment, mozjs_sym_comment,
      1600, 2, mozjs_anon_sym_PLUS_PLUS, mozjs_anon_sym_DASH_DASH, 1787, 2, mozjs_anon_sym_STAR,
      mozjs_anon_sym_SLASH, 1795, 2, mozjs_anon_sym_GT_GT_GT, mozjs_anon_sym_LT_LT, 1799, 2,
      mozjs_anon_sym_PLUS, mozjs_anon_sym_DASH, 1819, 2, mozjs_anon_sym_EQ_EQ,
      mozjs_anon_sym_BANG_EQ, 1821, 2, mozjs_anon_sym_EQ_EQ_EQ, mozjs_anon_sym_BANG_EQ_EQ, 1791,
      3, mozjs_anon_sym_in, mozjs_anon_sym_LT, mozjs_anon_sym_GT, 1805, 3, mozjs_anon_sym_LT_EQ,
      mozjs_anon_sym_GT_EQ, mozjs_anon_sym_instanceof]"

definition mozjs_small_run_32949 :: "nat list" where
  "mozjs_small_run_32949 =
    [27, 1578, 1, mozjs_anon_sym_LPAREN, 1580, 1, mozjs_anon_sym_LBRACK, 1582, 1,
      mozjs_anon_sym_DOT, 1594, 1, mozjs_sym_optional_chain, 1793, 1, mozjs_anon_sym_GT_GT, 1801,
      1, mozjs_anon_sym_PERCENT, 1803, 1, mozjs_anon_sym_STAR_STAR, 1809, 1,
      mozjs_anon_sym_AMP_AMP, 1811, 1, mozjs_anon_sym_PIPE_PIPE, 1813, 1, mozjs_anon_sym_AMP,
      1815, 1, mozjs_anon_sym_CARET, 1817, 1, mozjs_anon_sym_PIPE, 1823, 1,
      mozjs_anon_sym_QMARK_QMARK, 1825, 1, mozjs_sym__ternary_qmark, 1992, 1,
      mozjs_anon_sym_COMMA, 2108, 1, mozjs_anon_sym_RPAREN, 639, 1, mozjs_sym_arguments, 1208, 1,
      mozjs_aux_sym_sequence_expression_repeat1, 5, 2, mozjs_sym_html_comment, mozjs_sym_comment,
      1600, 2, mozjs_anon_sym_PLUS_PLUS, mozjs_anon_sym_DASH_DASH, 1787, 2, mozjs_anon_sym_STAR,
      mozjs_anon_sym_SLASH, 1795, 2, mozjs_anon_sym_GT_GT_GT, mozjs_anon_sym_LT_LT, 1799, 2,
      mozjs_anon_sym_PLUS, mozjs_anon_sym_DASH, 1819, 2, mozjs_anon_sym_EQ_EQ,
      mozjs_anon_sym_BANG_EQ, 1821, 2, mozjs_anon_sym_EQ_EQ_EQ, mozjs_anon_sym_BANG_EQ_EQ, 1791,
      3, mozjs_anon_sym_in, mozjs_anon_sym_LT, mozjs_anon_sym_GT, 1805, 3, mozjs_anon_sym_LT_EQ,
      mozjs_anon_sym_GT_EQ, mozjs_anon_sym_instanceof]"

definition mozjs_small_run_33042 :: "nat list" where
  "mozjs_small_run_33042 =
    [27, 1578, 1, mozjs_anon_sym_LPAREN, 1580, 1, mozjs_anon_sym_LBRACK, 1582, 1,
      mozjs_anon_sym_DOT, 1594, 1, mozjs_sym_optional_chain, 1793, 1, mozjs_anon_sym_GT_GT, 1801,
      1, mozjs_anon_sym_PERCENT, 1803, 1, mozjs_anon_sym_STAR_STAR, 1809, 1,
      mozjs_anon_sym_AMP_AMP, 1811, 1, mozjs_anon_sym_PIPE_PIPE, 1813, 1, mozjs_anon_sym_AMP,
      1815, 1, mozjs_anon_sym_CARET, 1817, 1, mozjs_anon_sym_PIPE, 1823, 1,
      mozjs_anon_sym_QMARK_QMARK, 1825, 1, mozjs_sym__ternary_qmark, 1992, 1,
      mozjs_anon_sym_COMMA, 2110, 1, mozjs_anon_sym_RPAREN, 639, 1, mozjs_sym_arguments, 1208, 1,
      mozjs_aux_sym_sequence_expression_repeat1, 5, 2, mozjs_sym_html_comment, mozjs_sym_comment,
      1600, 2, mozjs_anon_sym_PLUS_PLUS, mozjs_anon_sym_DASH_DASH, 1787, 2, mozjs_anon_sym_STAR,
      mozjs_anon_sym_SLASH, 1795, 2, mozjs_anon_sym_GT_GT_GT, mozjs_anon_sym_LT_LT, 1799, 2,
      mozjs_anon_sym_PLUS, mozjs_anon_sym_DASH, 1819, 2, mozjs_anon_sym_EQ_EQ,
      mozjs_anon_sym_BANG_EQ, 1821, 2, mozjs_anon_sym_EQ_EQ_EQ, mozjs_anon_sym_BANG_EQ_EQ, 1791,
      3, mozjs_anon_sym_in, mozjs_anon_sym_LT, mozjs_anon_sym_GT, 1805, 3, mozjs_anon_sym_LT_EQ,
      mozjs_anon_sym_GT_EQ, mozjs_anon_sym_instanceof]"

definition mozjs_small_run_33135 :: "nat list" where
  "mozjs_small_run_33135 =
    [27, 1578, 1, mozjs_anon_sym_LPAREN, 1580, 1, mozjs_anon_sym_LBRACK, 1582, 1,
      mozjs_anon_sym_DOT, 1594, 1, mozjs_sym_optional_chain, 1793, 1, mozjs_anon_sym_GT_GT, 1801,
      1, mozjs_anon_sym_PERCENT, 1803, 1, mozjs_anon_sym_STAR_STAR, 1809, 1,
      mozjs_anon_sym_AMP_AMP, 1811, 1, mozjs_anon_sym_PIPE_PIPE, 1813, 1, mozjs_anon_sym_AMP,
      1815, 1, mozjs_anon_sym_CARET, 1817, 1, mozjs_anon_sym_PIPE, 1823, 1,
      mozjs_anon_sym_QMARK_QMARK, 1825, 1, mozjs_sym__ternary_qmark, 1992, 1,
      mozjs_anon_sym_COMMA, 2112, 1, mozjs_anon_sym_RPAREN, 639, 1, mozjs_sym_arguments, 1208, 1,
      mozjs_aux_sym_sequence_expression_repeat1, 5, 2, mozjs_sym_html_comment, mozjs_sym_comment,
      1600, 2, mozjs_anon_sym_PLUS_PLUS, mozjs_anon_sym_DASH_DASH, 1787, 2, mozjs_anon_sym_STAR,
      mozjs_anon_sym_SLASH, 1795, 2, mozjs_anon_sym_GT_GT_GT, mozjs_anon_sym_LT_LT, 1799, 2,
      mozjs_anon_sym_PLUS, mozjs_anon_sym_DASH, 1819, 2, mozjs_anon_sym_EQ_EQ,
      mozjs_anon_sym_BANG_EQ, 1821, 2, mozjs_anon_sym_EQ_EQ_EQ, mozjs_anon_sym_BANG_EQ_EQ, 1791,
      3, mozjs_anon_sym_in, mozjs_anon_sym_LT, mozjs_anon_sym_GT, 1805, 3, mozjs_anon_sym_LT_EQ,
      mozjs_anon_sym_GT_EQ, mozjs_anon_sym_instanceof]"

definition mozjs_small_run_33228 :: "nat list" where
  "mozjs_small_run_33228 =
    [27, 1578, 1, mozjs_anon_sym_LPAREN, 1580, 1, mozjs_anon_sym_LBRACK, 1582, 1,
      mozjs_anon_sym_DOT, 1594, 1, mozjs_sym_optional_chain, 1793, 1, mozjs_anon_sym_GT_GT, 1801,
      1, mozjs_anon_sym_PERCENT, 1803, 1, mozjs_anon_sym_STAR_STAR, 1809, 1,
      mozjs_anon_sym_AMP_AMP, 1811, 1, mozjs_anon_sym_PIPE_PIPE, 1813, 1, mozjs_anon_sym_AMP,
      1815, 1, mozjs_anon_sym_CARET, 1817, 1, mozjs_anon_sym_PIPE, 1823, 1,
      mozjs_anon_sym_QMARK_QMARK, 1825, 1, mozjs_sym__ternary_qmark, 1992, 1,
      mozjs_anon_sym_COMMA, 2114, 1, mozjs_anon_sym_RPAREN, 639, 1, mozjs_sym_arguments, 1208, 1,
      mozjs_aux_sym_sequence_expression_repeat1, 5, 2, mozjs_sym_html_comment, mozjs_sym_comment,
      1600, 2, mozjs_anon_sym_PLUS_PLUS, mozjs_anon_sym_DASH_DASH, 1787, 2, mozjs_anon_sym_STAR,
      mozjs_anon_sym_SLASH, 1795, 2, mozjs_anon_sym_GT_GT_GT, mozjs_anon_sym_LT_LT, 1799, 2,
      mozjs_anon_sym_PLUS, mozjs_anon_sym_DASH, 1819, 2, mozjs_anon_sym_EQ_EQ,
      mozjs_anon_sym_BANG_EQ, 1821, 2, mozjs_anon_sym_EQ_EQ_EQ, mozjs_anon_sym_BANG_EQ_EQ, 1791,
      3, mozjs_anon_sym_in, mozjs_anon_sym_LT, mozjs_anon_sym_GT, 1805, 3, mozjs_anon_sym_LT_EQ,
      mozjs_anon_sym_GT_EQ, mozjs_anon_sym_instanceof]"

definition mozjs_small_run_33321 :: "nat list" where
  "mozjs_small_run_33321 =
    [27, 1578, 1, mozjs_anon_sym_LPAREN, 1580, 1, mozjs_anon_sym_LBRACK, 1582, 1,
      mozjs_anon_sym_DOT, 1594, 1, mozjs_sym_optional_chain, 1793, 1, mozjs_anon_sym_GT_GT, 1801,
      1, mozjs_anon_sym_PERCENT, 1803, 1, mozjs_anon_sym_STAR_STAR, 1809, 1,
      mozjs_anon_sym_AMP_AMP, 1811, 1, mozjs_anon_sym_PIPE_PIPE, 1813, 1, mozjs_anon_sym_AMP,
      1815, 1, mozjs_anon_sym_CARET, 1817, 1, mozjs_anon_sym_PIPE, 1823, 1,
      mozjs_anon_sym_QMARK_QMARK, 1825, 1, mozjs_sym__ternary_qmark, 1992, 1,
      mozjs_anon_sym_COMMA, 2116, 1, mozjs_anon_sym_RPAREN, 639, 1, mozjs_sym_arguments, 1208, 1,
      mozjs_aux_sym_sequence_expression_repeat1, 5, 2, mozjs_sym_html_comment, mozjs_sym_comment,
      1600, 2, mozjs_anon_sym_PLUS_PLUS, mozjs_anon_sym_DASH_DASH, 1787, 2, mozjs_anon_sym_STAR,
      mozjs_anon_sym_SLASH, 1795, 2, mozjs_anon_sym_GT_GT_GT, mozjs_anon_sym_LT_LT, 1799, 2,
      mozjs_anon_sym_PLUS, mozjs_anon_sym_DASH, 1819, 2, mozjs_anon_sym_EQ_EQ,
      mozjs_anon_sym_BANG_EQ, 1821, 2, mozjs_anon_sym_EQ_EQ_EQ, mozjs_anon_sym_BANG_EQ_EQ, 1791,
      3, mozjs_anon_sym_in, mozjs_anon_sym_LT, mozjs_anon_sym_GT, 1805, 3, mozjs_anon_sym_LT_EQ,
      mozjs_anon_sym_GT_EQ, mozjs_anon_sym_instanceof]"

definition mozjs_small_run_33414 :: "nat list" where
  "mozjs_small_run_33414 =
    [27, 1578, 1, mozjs_anon_sym_LPAREN, 1580, 1, mozjs_anon_sym_LBRACK, 1582, 1,
      mozjs_anon_sym_DOT, 1594, 1, mozjs_sym_optional_chain, 1793, 1, mozjs_anon_sym_GT_GT, 1801,
      1, mozjs_anon_sym_PERCENT, 1803, 1, mozjs_anon_sym_STAR_STAR, 1809, 1,
      mozjs_anon_sym_AMP_AMP, 1811, 1, mozjs_anon_sym_PIPE_PIPE, 1813, 1, mozjs_anon_sym_AMP,
      1815, 1, mozjs_anon_sym_CARET, 1817, 1, mozjs_anon_sym_PIPE, 1823, 1,
      mozjs_anon_sym_QMARK_QMARK, 1825, 1, mozjs_sym__ternary_qmark, 1992, 1,
      mozjs_anon_sym_COMMA, 2118, 1, mozjs_anon_sym_COLON, 639, 1, mozjs_sym_arguments, 1208, 1,
      mozjs_aux_sym_sequence_expression_repeat1, 5, 2, mozjs_sym_html_comment, mozjs_sym_comment,
      1600, 2, mozjs_anon_sym_PLUS_PLUS, mozjs_anon_sym_DASH_DASH, 1787, 2, mozjs_anon_sym_STAR,
      mozjs_anon_sym_SLASH, 1795, 2, mozjs_anon_sym_GT_GT_GT, mozjs_anon_sym_LT_LT, 1799, 2,
      mozjs_anon_sym_PLUS, mozjs_anon_sym_DASH, 1819, 2, mozjs_anon_sym_EQ_EQ,
      mozjs_anon_sym_BANG_EQ, 1821, 2, mozjs_anon_sym_EQ_EQ_EQ, mozjs_anon_sym_BANG_EQ_EQ, 1791,
      3, mozjs_anon_sym_in, mozjs_anon_sym_LT, mozjs_anon_sym_GT, 1805, 3, mozjs_anon_sym_LT_EQ,
      mozjs_anon_sym_GT_EQ, mozjs_anon_sym_instanceof]"

definition mozjs_small_run_33507 :: "nat list" where
  "mozjs_small_run_33507 =
    [27, 1578, 1, mozjs_anon_sym_LPAREN, 1580, 1, mozjs_anon_sym_LBRACK, 1582, 1,
      mozjs_anon_sym_DOT, 1594, 1, mozjs_sym_optional_chain, 1793, 1, mozjs_anon_sym_GT_GT, 1801,
      1, mozjs_anon_sym_PERCENT, 1803, 1, mozjs_anon_sym_STAR_STAR, 1809, 1,
      mozjs_anon_sym_AMP_AMP, 1811, 1, mozjs_anon_sym_PIPE_PIPE, 1813, 1, mozjs_anon_sym_AMP,
      1815, 1, mozjs_anon_sym_CARET, 1817, 1, mozjs_anon_sym_PIPE, 1823, 1,
      mozjs_anon_sym_QMARK_QMARK, 1825, 1, mozjs_sym__ternary_qmark, 1992, 1,
      mozjs_anon_sym_COMMA, 2120, 1, mozjs_anon_sym_RPAREN, 639, 1, mozjs_sym_arguments, 1208, 1,
      mozjs_aux_sym_sequence_expression_repeat1, 5, 2, mozjs_sym_html_comment, mozjs_sym_comment,
      1600, 2, mozjs_anon_sym_PLUS_PLUS, mozjs_anon_sym_DASH_DASH, 1787, 2, mozjs_anon_sym_STAR,
      mozjs_anon_sym_SLASH, 1795, 2, mozjs_anon_sym_GT_GT_GT, mozjs_anon_sym_LT_LT, 1799, 2,
      mozjs_anon_sym_PLUS, mozjs_anon_sym_DASH, 1819, 2, mozjs_anon_sym_EQ_EQ,
      mozjs_anon_sym_BANG_EQ, 1821, 2, mozjs_anon_sym_EQ_EQ_EQ, mozjs_anon_sym_BANG_EQ_EQ, 1791,
      3, mozjs_anon_sym_in, mozjs_anon_sym_LT, mozjs_anon_sym_GT, 1805, 3, mozjs_anon_sym_LT_EQ,
      mozjs_anon_sym_GT_EQ, mozjs_anon_sym_instanceof]"

definition mozjs_small_run_33600 :: "nat list" where
  "mozjs_small_run_33600 =
    [27, 1578, 1, mozjs_anon_sym_LPAREN, 1580, 1, mozjs_anon_sym_LBRACK, 1582, 1,
      mozjs_anon_sym_DOT, 1594, 1, mozjs_sym_optional_chain, 1793, 1, mozjs_anon_sym_GT_GT, 1801,
      1, mozjs_anon_sym_PERCENT, 1803, 1, mozjs_anon_sym_STAR_STAR, 1809, 1,
      mozjs_anon_sym_AMP_AMP, 1811, 1, mozjs_anon_sym_PIPE_PIPE, 1813, 1, mozjs_anon_sym_AMP,
      1815, 1, mozjs_anon_sym_CARET, 1817, 1, mozjs_anon_sym_PIPE, 1823, 1,
      mozjs_anon_sym_QMARK_QMARK, 1825, 1, mozjs_sym__ternary_qmark, 1992, 1,
      mozjs_anon_sym_COMMA, 2122, 1, mozjs_anon_sym_RPAREN, 639, 1, mozjs_sym_arguments, 1208, 1,
      mozjs_aux_sym_sequence_expression_repeat1, 5, 2, mozjs_sym_html_comment, mozjs_sym_comment,
      1600, 2, mozjs_anon_sym_PLUS_PLUS, mozjs_anon_sym_DASH_DASH, 1787, 2, mozjs_anon_sym_STAR,
      mozjs_anon_sym_SLASH, 1795, 2, mozjs_anon_sym_GT_GT_GT, mozjs_anon_sym_LT_LT, 1799, 2,
      mozjs_anon_sym_PLUS, mozjs_anon_sym_DASH, 1819, 2, mozjs_anon_sym_EQ_EQ,
      mozjs_anon_sym_BANG_EQ, 1821, 2, mozjs_anon_sym_EQ_EQ_EQ, mozjs_anon_sym_BANG_EQ_EQ, 1791,
      3, mozjs_anon_sym_in, mozjs_anon_sym_LT, mozjs_anon_sym_GT, 1805, 3, mozjs_anon_sym_LT_EQ,
      mozjs_anon_sym_GT_EQ, mozjs_anon_sym_instanceof]"

definition mozjs_small_run_33693 :: "nat list" where
  "mozjs_small_run_33693 =
    [27, 1578, 1, mozjs_anon_sym_LPAREN, 1580, 1, mozjs_anon_sym_LBRACK, 1582, 1,
      mozjs_anon_sym_DOT, 1594, 1, mozjs_sym_optional_chain, 1793, 1, mozjs_anon_sym_GT_GT, 1801,
      1, mozjs_anon_sym_PERCENT, 1803, 1, mozjs_anon_sym_STAR_STAR, 1809, 1,
      mozjs_anon_sym_AMP_AMP, 1811, 1, mozjs_anon_sym_PIPE_PIPE, 1813, 1, mozjs_anon_sym_AMP,
      1815, 1, mozjs_anon_sym_CARET, 1817, 1, mozjs_anon_sym_PIPE, 1823, 1,
      mozjs_anon_sym_QMARK_QMARK, 1825, 1, mozjs_sym__ternary_qmark, 1992, 1,
      mozjs_anon_sym_COMMA, 2124, 1, mozjs_anon_sym_RPAREN, 639, 1, mozjs_sym_arguments, 1208, 1,
      mozjs_aux_sym_sequence_expression_repeat1, 5, 2, mozjs_sym_html_comment, mozjs_sym_comment,
      1600, 2, mozjs_anon_sym_PLUS_PLUS, mozjs_anon_sym_DASH_DASH, 1787, 2, mozjs_anon_sym_STAR,
      mozjs_anon_sym_SLASH, 1795, 2, mozjs_anon_sym_GT_GT_GT, mozjs_anon_sym_LT_LT, 1799, 2,
      mozjs_anon_sym_PLUS, mozjs_anon_sym_DASH, 1819, 2, mozjs_anon_sym_EQ_EQ,
      mozjs_anon_sym_BANG_EQ, 1821, 2, mozjs_anon_sym_EQ_EQ_EQ, mozjs_anon_sym_BANG_EQ_EQ, 1791,
      3, mozjs_anon_sym_in, mozjs_anon_sym_LT, mozjs_anon_sym_GT, 1805, 3, mozjs_anon_sym_LT_EQ,
      mozjs_anon_sym_GT_EQ, mozjs_anon_sym_instanceof]"

definition mozjs_small_run_33786 :: "nat list" where
  "mozjs_small_run_33786 =
    [27, 1578, 1, mozjs_anon_sym_LPAREN, 1580, 1, mozjs_anon_sym_LBRACK, 1582, 1,
      mozjs_anon_sym_DOT, 1594, 1, mozjs_sym_optional_chain, 1793, 1, mozjs_anon_sym_GT_GT, 1801,
      1, mozjs_anon_sym_PERCENT, 1803, 1, mozjs_anon_sym_STAR_STAR, 1809, 1,
      mozjs_anon_sym_AMP_AMP, 1811, 1, mozjs_anon_sym_PIPE_PIPE, 1813, 1, mozjs_anon_sym_AMP,
      1815, 1, mozjs_anon_sym_CARET, 1817, 1, mozjs_anon_sym_PIPE, 1823, 1,
      mozjs_anon_sym_QMARK_QMARK, 1825, 1, mozjs_sym__ternary_qmark, 1992, 1,
      mozjs_anon_sym_COMMA, 2126, 1, mozjs_anon_sym_SEMI, 639, 1, mozjs_sym_arguments, 1208, 1,
      mozjs_aux_sym_sequence_expression_repeat1, 5, 2, mozjs_sym_html_comment, mozjs_sym_comment,
      1600, 2, mozjs_anon_sym_PLUS_PLUS, mozjs_anon_sym_DASH_DASH, 1787, 2, mozjs_anon_sym_STAR,
      mozjs_anon_sym_SLASH, 1795, 2, mozjs_anon_sym_GT_GT_GT, mozjs_anon_sym_LT_LT, 1799, 2,
      mozjs_anon_sym_PLUS, mozjs_anon_sym_DASH, 1819, 2, mozjs_anon_sym_EQ_EQ,
      mozjs_anon_sym_BANG_EQ, 1821, 2, mozjs_anon_sym_EQ_EQ_EQ, mozjs_anon_sym_BANG_EQ_EQ, 1791,
      3, mozjs_anon_sym_in, mozjs_anon_sym_LT, mozjs_anon_sym_GT, 1805, 3, mozjs_anon_sym_LT_EQ,
      mozjs_anon_sym_GT_EQ, mozjs_anon_sym_instanceof]"

definition mozjs_small_run_33879 :: "nat list" where
  "mozjs_small_run_33879 =
    [27, 1578, 1, mozjs_anon_sym_LPAREN, 1580, 1, mozjs_anon_sym_LBRACK, 1582, 1,
      mozjs_anon_sym_DOT, 1594, 1, mozjs_sym_optional_chain, 1793, 1, mozjs_anon_sym_GT_GT, 1801,
      1, mozjs_anon_sym_PERCENT, 1803, 1, mozjs_anon_sym_STAR_STAR, 1809, 1,
      mozjs_anon_sym_AMP_AMP, 1811, 1, mozjs_anon_sym_PIPE_PIPE, 1813, 1, mozjs_anon_sym_AMP,
      1815, 1, mozjs_anon_sym_CARET, 1817, 1, mozjs_anon_sym_PIPE, 1823, 1,
      mozjs_anon_sym_QMARK_QMARK, 1825, 1, mozjs_sym__ternary_qmark, 1992, 1,
      mozjs_anon_sym_COMMA, 2128, 1, mozjs_anon_sym_RPAREN, 639, 1, mozjs_sym_arguments, 1208, 1,
      mozjs_aux_sym_sequence_expression_repeat1, 5, 2, mozjs_sym_html_comment, mozjs_sym_comment,
      1600, 2, mozjs_anon_sym_PLUS_PLUS, mozjs_anon_sym_DASH_DASH, 1787, 2, mozjs_anon_sym_STAR,
      mozjs_anon_sym_SLASH, 1795, 2, mozjs_anon_sym_GT_GT_GT, mozjs_anon_sym_LT_LT, 1799, 2,
      mozjs_anon_sym_PLUS, mozjs_anon_sym_DASH, 1819, 2, mozjs_anon_sym_EQ_EQ,
      mozjs_anon_sym_BANG_EQ, 1821, 2, mozjs_anon_sym_EQ_EQ_EQ, mozjs_anon_sym_BANG_EQ_EQ, 1791,
      3, mozjs_anon_sym_in, mozjs_anon_sym_LT, mozjs_anon_sym_GT, 1805, 3, mozjs_anon_sym_LT_EQ,
      mozjs_anon_sym_GT_EQ, mozjs_anon_sym_instanceof]"

definition mozjs_small_run_33972 :: "nat list" where
  "mozjs_small_run_33972 =
    [27, 1578, 1, mozjs_anon_sym_LPAREN, 1580, 1, mozjs_anon_sym_LBRACK, 1582, 1,
      mozjs_anon_sym_DOT, 1594, 1, mozjs_sym_optional_chain, 1793, 1, mozjs_anon_sym_GT_GT, 1801,
      1, mozjs_anon_sym_PERCENT, 1803, 1, mozjs_anon_sym_STAR_STAR, 1809, 1,
      mozjs_anon_sym_AMP_AMP, 1811, 1, mozjs_anon_sym_PIPE_PIPE, 1813, 1, mozjs_anon_sym_AMP,
      1815, 1, mozjs_anon_sym_CARET, 1817, 1, mozjs_anon_sym_PIPE, 1823, 1,
      mozjs_anon_sym_QMARK_QMARK, 1825, 1, mozjs_sym__ternary_qmark, 1992, 1,
      mozjs_anon_sym_COMMA, 2130, 1, mozjs_anon_sym_SEMI, 639, 1, mozjs_sym_arguments, 1208, 1,
      mozjs_aux_sym_sequence_expression_repeat1, 5, 2, mozjs_sym_html_comment, mozjs_sym_comment,
      1600, 2, mozjs_anon_sym_PLUS_PLUS, mozjs_anon_sym_DASH_DASH, 1787, 2, mozjs_anon_sym_STAR,
      mozjs_anon_sym_SLASH, 1795, 2, mozjs_anon_sym_GT_GT_GT, mozjs_anon_sym_LT_LT, 1799, 2,
      mozjs_anon_sym_PLUS, mozjs_anon_sym_DASH, 1819, 2, mozjs_anon_sym_EQ_EQ,
      mozjs_anon_sym_BANG_EQ, 1821, 2, mozjs_anon_sym_EQ_EQ_EQ, mozjs_anon_sym_BANG_EQ_EQ, 1791,
      3, mozjs_anon_sym_in, mozjs_anon_sym_LT, mozjs_anon_sym_GT, 1805, 3, mozjs_anon_sym_LT_EQ,
      mozjs_anon_sym_GT_EQ, mozjs_anon_sym_instanceof]"

definition mozjs_small_run_34065 :: "nat list" where
  "mozjs_small_run_34065 =
    [27, 1578, 1, mozjs_anon_sym_LPAREN, 1580, 1, mozjs_anon_sym_LBRACK, 1582, 1,
      mozjs_anon_sym_DOT, 1594, 1, mozjs_sym_optional_chain, 1793, 1, mozjs_anon_sym_GT_GT, 1801,
      1, mozjs_anon_sym_PERCENT, 1803, 1, mozjs_anon_sym_STAR_STAR, 1809, 1,
      mozjs_anon_sym_AMP_AMP, 1811, 1, mozjs_anon_sym_PIPE_PIPE, 1813, 1, mozjs_anon_sym_AMP,
      1815, 1, mozjs_anon_sym_CARET, 1817, 1, mozjs_anon_sym_PIPE, 1823, 1,
      mozjs_anon_sym_QMARK_QMARK, 1825, 1, mozjs_sym__ternary_qmark, 1992, 1,
      mozjs_anon_sym_COMMA, 2132, 1, mozjs_anon_sym_SEMI, 639, 1, mozjs_sym_arguments, 1208, 1,
      mozjs_aux_sym_sequence_expression_repeat1, 5, 2, mozjs_sym_html_comment, mozjs_sym_comment,
      1600, 2, mozjs_anon_sym_PLUS_PLUS, mozjs_anon_sym_DASH_DASH, 1787, 2, mozjs_anon_sym_STAR,
      mozjs_anon_sym_SLASH, 1795, 2, mozjs_anon_sym_GT_GT_GT, mozjs_anon_sym_LT_LT, 1799, 2,
      mozjs_anon_sym_PLUS, mozjs_anon_sym_DASH, 1819, 2, mozjs_anon_sym_EQ_EQ,
      mozjs_anon_sym_BANG_EQ, 1821, 2, mozjs_anon_sym_EQ_EQ_EQ, mozjs_anon_sym_BANG_EQ_EQ, 1791,
      3, mozjs_anon_sym_in, mozjs_anon_sym_LT, mozjs_anon_sym_GT, 1805, 3, mozjs_anon_sym_LT_EQ,
      mozjs_anon_sym_GT_EQ, mozjs_anon_sym_instanceof]"

definition mozjs_small_run_34158 :: "nat list" where
  "mozjs_small_run_34158 =
    [27, 1578, 1, mozjs_anon_sym_LPAREN, 1580, 1, mozjs_anon_sym_LBRACK, 1582, 1,
      mozjs_anon_sym_DOT, 1594, 1, mozjs_sym_optional_chain, 1793, 1, mozjs_anon_sym_GT_GT, 1801,
      1, mozjs_anon_sym_PERCENT, 1803, 1, mozjs_anon_sym_STAR_STAR, 1809, 1,
      mozjs_anon_sym_AMP_AMP, 1811, 1, mozjs_anon_sym_PIPE_PIPE, 1813, 1, mozjs_anon_sym_AMP,
      1815, 1, mozjs_anon_sym_CARET, 1817, 1, mozjs_anon_sym_PIPE, 1823, 1,
      mozjs_anon_sym_QMARK_QMARK, 1825, 1, mozjs_sym__ternary_qmark, 1992, 1,
      mozjs_anon_sym_COMMA, 2134, 1, mozjs_anon_sym_SEMI, 639, 1, mozjs_sym_arguments, 1208, 1,
      mozjs_aux_sym_sequence_expression_repeat1, 5, 2, mozjs_sym_html_comment, mozjs_sym_comment,
      1600, 2, mozjs_anon_sym_PLUS_PLUS, mozjs_anon_sym_DASH_DASH, 1787, 2, mozjs_anon_sym_STAR,
      mozjs_anon_sym_SLASH, 1795, 2, mozjs_anon_sym_GT_GT_GT, mozjs_anon_sym_LT_LT, 1799, 2,
      mozjs_anon_sym_PLUS, mozjs_anon_sym_DASH, 1819, 2, mozjs_anon_sym_EQ_EQ,
      mozjs_anon_sym_BANG_EQ, 1821, 2, mozjs_anon_sym_EQ_EQ_EQ, mozjs_anon_sym_BANG_EQ_EQ, 1791,
      3, mozjs_anon_sym_in, mozjs_anon_sym_LT, mozjs_anon_sym_GT, 1805, 3, mozjs_anon_sym_LT_EQ,
      mozjs_anon_sym_GT_EQ, mozjs_anon_sym_instanceof]"

definition mozjs_small_run_34251 :: "nat list" where
  "mozjs_small_run_34251 =
    [27, 1578, 1, mozjs_anon_sym_LPAREN, 1580, 1, mozjs_anon_sym_LBRACK, 1582, 1,
      mozjs_anon_sym_DOT, 1594, 1, mozjs_sym_optional_chain, 1793, 1, mozjs_anon_sym_GT_GT, 1801,
      1, mozjs_anon_sym_PERCENT, 1803, 1, mozjs_anon_sym_STAR_STAR, 1809, 1,
      mozjs_anon_sym_AMP_AMP, 1811, 1, mozjs_anon_sym_PIPE_PIPE, 1813, 1, mozjs_anon_sym_AMP,
      1815, 1, mozjs_anon_sym_CARET, 1817, 1, mozjs_anon_sym_PIPE, 1823, 1,
      mozjs_anon_sym_QMARK_QMARK, 1825, 1, mozjs_sym__ternary_qmark, 1992, 1,
      mozjs_anon_sym_COMMA, 2136, 1, mozjs_anon_sym_RPAREN, 639, 1, mozjs_sym_arguments, 1208, 1,
      mozjs_aux_sym_sequence_expression_repeat1, 5, 2, mozjs_sym_html_comment, mozjs_sym_comment,
      1600, 2, mozjs_anon_sym_PLUS_PLUS, mozjs_anon_sym_DASH_DASH, 1787, 2, mozjs_anon_sym_STAR,
      mozjs_anon_sym_SLASH, 1795, 2, mozjs_anon_sym_GT_GT_GT, mozjs_anon_sym_LT_LT, 1799, 2,
      mozjs_anon_sym_PLUS, mozjs_anon_sym_DASH, 1819, 2, mozjs_anon_sym_EQ_EQ,
      mozjs_anon_sym_BANG_EQ, 1821, 2, mozjs_anon_sym_EQ_EQ_EQ, mozjs_anon_sym_BANG_EQ_EQ, 1791,
      3, mozjs_anon_sym_in, mozjs_anon_sym_LT, mozjs_anon_sym_GT, 1805, 3, mozjs_anon_sym_LT_EQ,
      mozjs_anon_sym_GT_EQ, mozjs_anon_sym_instanceof]"

definition mozjs_small_run_34344 :: "nat list" where
  "mozjs_small_run_34344 =
    [25, 1578, 1, mozjs_anon_sym_LPAREN, 1580, 1, mozjs_anon_sym_LBRACK, 1582, 1,
      mozjs_anon_sym_DOT, 1594, 1, mozjs_sym_optional_chain, 2142, 1, mozjs_anon_sym_AMP_AMP,
      2144, 1, mozjs_anon_sym_PIPE_PIPE, 2146, 1, mozjs_anon_sym_GT_GT, 2150, 1,
      mozjs_anon_sym_AMP, 2152, 1, mozjs_anon_sym_CARET, 2154, 1, mozjs_anon_sym_PIPE, 2158, 1,
      mozjs_anon_sym_PERCENT, 2160, 1, mozjs_anon_sym_STAR_STAR, 2168, 1,
      mozjs_anon_sym_QMARK_QMARK, 2170, 1, mozjs_sym__ternary_qmark, 639, 1, mozjs_sym_arguments,
      5, 2, mozjs_sym_html_comment, mozjs_sym_comment, 1600, 2, mozjs_anon_sym_PLUS_PLUS,
      mozjs_anon_sym_DASH_DASH, 1736, 2, mozjs_anon_sym_of, mozjs_anon_sym_BQUOTE, 2138, 2,
      mozjs_anon_sym_STAR, mozjs_anon_sym_SLASH, 2148, 2, mozjs_anon_sym_GT_GT_GT,
      mozjs_anon_sym_LT_LT, 2156, 2, mozjs_anon_sym_PLUS, mozjs_anon_sym_DASH, 2164, 2,
      mozjs_anon_sym_EQ_EQ, mozjs_anon_sym_BANG_EQ, 2166, 2, mozjs_anon_sym_EQ_EQ_EQ,
      mozjs_anon_sym_BANG_EQ_EQ, 2140, 3, mozjs_anon_sym_in, mozjs_anon_sym_LT,
      mozjs_anon_sym_GT, 2162, 3, mozjs_anon_sym_LT_EQ, mozjs_anon_sym_GT_EQ,
      mozjs_anon_sym_instanceof]"

definition mozjs_small_run_34432 :: "nat list" where
  "mozjs_small_run_34432 =
    [20, 1578, 1, mozjs_anon_sym_LPAREN, 1580, 1, mozjs_anon_sym_LBRACK, 1582, 1,
      mozjs_anon_sym_DOT, 1594, 1, mozjs_sym_optional_chain, 1797, 1, mozjs_anon_sym_PIPE, 2176,
      1, mozjs_anon_sym_GT_GT, 2180, 1, mozjs_anon_sym_AMP, 2184, 1, mozjs_anon_sym_PERCENT,
      2186, 1, mozjs_anon_sym_STAR_STAR, 639, 1, mozjs_sym_arguments, 5, 2,
      mozjs_sym_html_comment, mozjs_sym_comment, 1600, 2, mozjs_anon_sym_PLUS_PLUS,
      mozjs_anon_sym_DASH_DASH, 2172, 2, mozjs_anon_sym_STAR, mozjs_anon_sym_SLASH, 2178, 2,
      mozjs_anon_sym_GT_GT_GT, mozjs_anon_sym_LT_LT, 2182, 2, mozjs_anon_sym_PLUS,
      mozjs_anon_sym_DASH, 2190, 2, mozjs_anon_sym_EQ_EQ, mozjs_anon_sym_BANG_EQ, 2192, 2,
      mozjs_anon_sym_EQ_EQ_EQ, mozjs_anon_sym_BANG_EQ_EQ, 2174, 3, mozjs_anon_sym_in,
      mozjs_anon_sym_LT, mozjs_anon_sym_GT, 2188, 3, mozjs_anon_sym_LT_EQ, mozjs_anon_sym_GT_EQ,
      mozjs_anon_sym_instanceof, 1789, 7, mozjs_sym__ternary_qmark, mozjs_anon_sym_LBRACE,
      mozjs_anon_sym_AMP_AMP, mozjs_anon_sym_PIPE_PIPE, mozjs_anon_sym_CARET,
      mozjs_anon_sym_QMARK_QMARK, mozjs_anon_sym_BQUOTE]"

definition mozjs_small_run_34510 :: "nat list" where
  "mozjs_small_run_34510 =
    [21, 1578, 1, mozjs_anon_sym_LPAREN, 1580, 1, mozjs_anon_sym_LBRACK, 1582, 1,
      mozjs_anon_sym_DOT, 1594, 1, mozjs_sym_optional_chain, 1797, 1, mozjs_anon_sym_PIPE, 2176,
      1, mozjs_anon_sym_GT_GT, 2180, 1, mozjs_anon_sym_AMP, 2184, 1, mozjs_anon_sym_PERCENT,
      2186, 1, mozjs_anon_sym_STAR_STAR, 2194, 1, mozjs_anon_sym_CARET, 639, 1,
      mozjs_sym_arguments, 5, 2, mozjs_sym_html_comment, mozjs_sym_comment, 1600, 2,
      mozjs_anon_sym_PLUS_PLUS, mozjs_anon_sym_DASH_DASH, 2172, 2, mozjs_anon_sym_STAR,
      mozjs_anon_sym_SLASH, 2178, 2, mozjs_anon_sym_GT_GT_GT, mozjs_anon_sym_LT_LT, 2182, 2,
      mozjs_anon_sym_PLUS, mozjs_anon_sym_DASH, 2190, 2, mozjs_anon_sym_EQ_EQ,
      mozjs_anon_sym_BANG_EQ, 2192, 2, mozjs_anon_sym_EQ_EQ_EQ, mozjs_anon_sym_BANG_EQ_EQ, 2174,
      3, mozjs_anon_sym_in, mozjs_anon_sym_LT, mozjs_anon_sym_GT, 2188, 3, mozjs_anon_sym_LT_EQ,
      mozjs_anon_sym_GT_EQ, mozjs_anon_sym_instanceof, 1789, 6, mozjs_sym__ternary_qmark,
      mozjs_anon_sym_LBRACE, mozjs_anon_sym_AMP_AMP, mozjs_anon_sym_PIPE_PIPE,
      mozjs_anon_sym_QMARK_QMARK, mozjs_anon_sym_BQUOTE]"

definition mozjs_small_run_34590 :: "nat list" where
  "mozjs_small_run_34590 =
    [12, 1578, 1, mozjs_anon_sym_LPAREN, 1580, 1, mozjs_anon_sym_LBRACK, 1582, 1,
      mozjs_anon_sym_DOT, 1594, 1, mozjs_sym_optional_chain, 2184, 1, mozjs_anon_sym_PERCENT,
      2186, 1, mozjs_anon_sym_STAR_STAR, 639, 1, mozjs_sym_arguments, 5, 2,
      mozjs_sym_html_comment, mozjs_sym_comment, 1600, 2, mozjs_anon_sym_PLUS_PLUS,
      mozjs_anon_sym_DASH_DASH, 2172, 2, mozjs_anon_sym_STAR, mozjs_anon_sym_SLASH, 1797, 10,
      mozjs_anon_sym_in, mozjs_anon_sym_LT, mozjs_anon_sym_GT, mozjs_anon_sym_GT_GT,
      mozjs_anon_sym_AMP, mozjs_anon_sym_PIPE, mozjs_anon_sym_PLUS, mozjs_anon_sym_DASH,
      mozjs_anon_sym_EQ_EQ, mozjs_anon_sym_BANG_EQ, 1789, 14, mozjs_sym__ternary_qmark,
      mozjs_anon_sym_LBRACE, mozjs_anon_sym_AMP_AMP, mozjs_anon_sym_PIPE_PIPE,
      mozjs_anon_sym_GT_GT_GT, mozjs_anon_sym_LT_LT, mozjs_anon_sym_CARET, mozjs_anon_sym_LT_EQ,
      mozjs_anon_sym_EQ_EQ_EQ, mozjs_anon_sym_BANG_EQ_EQ, mozjs_anon_sym_GT_EQ,
      mozjs_anon_sym_QMARK_QMARK, mozjs_anon_sym_instanceof, mozjs_anon_sym_BQUOTE]"

definition mozjs_small_run_34652 :: "nat list" where
  "mozjs_small_run_34652 =
    [10, 1578, 1, mozjs_anon_sym_LPAREN, 1580, 1, mozjs_anon_sym_LBRACK, 1582, 1,
      mozjs_anon_sym_DOT, 1594, 1, mozjs_sym_optional_chain, 2186, 1, mozjs_anon_sym_STAR_STAR,
      639, 1, mozjs_sym_arguments, 5, 2, mozjs_sym_html_comment, mozjs_sym_comment, 1600, 2,
      mozjs_anon_sym_PLUS_PLUS, mozjs_anon_sym_DASH_DASH, 1797, 12, mozjs_anon_sym_STAR,
      mozjs_anon_sym_in, mozjs_anon_sym_LT, mozjs_anon_sym_GT, mozjs_anon_sym_GT_GT,
      mozjs_anon_sym_AMP, mozjs_anon_sym_PIPE, mozjs_anon_sym_PLUS, mozjs_anon_sym_DASH,
      mozjs_anon_sym_SLASH, mozjs_anon_sym_EQ_EQ, mozjs_anon_sym_BANG_EQ, 1789, 15,
      mozjs_sym__ternary_qmark, mozjs_anon_sym_LBRACE, mozjs_anon_sym_AMP_AMP,
      mozjs_anon_sym_PIPE_PIPE, mozjs_anon_sym_GT_GT_GT, mozjs_anon_sym_LT_LT,
      mozjs_anon_sym_CARET, mozjs_anon_sym_PERCENT, mozjs_anon_sym_LT_EQ,
      mozjs_anon_sym_EQ_EQ_EQ, mozjs_anon_sym_BANG_EQ_EQ, mozjs_anon_sym_GT_EQ,
      mozjs_anon_sym_QMARK_QMARK, mozjs_anon_sym_instanceof, mozjs_anon_sym_BQUOTE]"

definition mozjs_small_run_34710 :: "nat list" where
  "mozjs_small_run_34710 =
    [17, 1578, 1, mozjs_anon_sym_LPAREN, 1580, 1, mozjs_anon_sym_LBRACK, 1582, 1,
      mozjs_anon_sym_DOT, 1594, 1, mozjs_sym_optional_chain, 2176, 1, mozjs_anon_sym_GT_GT, 2184,
      1, mozjs_anon_sym_PERCENT, 2186, 1, mozjs_anon_sym_STAR_STAR, 639, 1, mozjs_sym_arguments,
      5, 2, mozjs_sym_html_comment, mozjs_sym_comment, 1600, 2, mozjs_anon_sym_PLUS_PLUS,
      mozjs_anon_sym_DASH_DASH, 2172, 2, mozjs_anon_sym_STAR, mozjs_anon_sym_SLASH, 2178, 2,
      mozjs_anon_sym_GT_GT_GT, mozjs_anon_sym_LT_LT, 2182, 2, mozjs_anon_sym_PLUS,
      mozjs_anon_sym_DASH, 2174, 3, mozjs_anon_sym_in, mozjs_anon_sym_LT, mozjs_anon_sym_GT,
      2188, 3, mozjs_anon_sym_LT_EQ, mozjs_anon_sym_GT_EQ, mozjs_anon_sym_instanceof, 1797, 4,
      mozjs_anon_sym_AMP, mozjs_anon_sym_PIPE, mozjs_anon_sym_EQ_EQ, mozjs_anon_sym_BANG_EQ,
      1789, 9, mozjs_sym__ternary_qmark, mozjs_anon_sym_LBRACE, mozjs_anon_sym_AMP_AMP,
      mozjs_anon_sym_PIPE_PIPE, mozjs_anon_sym_CARET, mozjs_anon_sym_EQ_EQ_EQ,
      mozjs_anon_sym_BANG_EQ_EQ, mozjs_anon_sym_QMARK_QMARK, mozjs_anon_sym_BQUOTE]"

definition mozjs_small_run_34782 :: "nat list" where
  "mozjs_small_run_34782 =
    [23, 1578, 1, mozjs_anon_sym_LPAREN, 1580, 1, mozjs_anon_sym_LBRACK, 1582, 1,
      mozjs_anon_sym_DOT, 1594, 1, mozjs_sym_optional_chain, 2176, 1, mozjs_anon_sym_GT_GT, 2180,
      1, mozjs_anon_sym_AMP, 2184, 1, mozjs_anon_sym_PERCENT, 2186, 1, mozjs_anon_sym_STAR_STAR,
      2194, 1, mozjs_anon_sym_CARET, 2196, 1, mozjs_anon_sym_AMP_AMP, 2198, 1,
      mozjs_anon_sym_PIPE_PIPE, 2200, 1, mozjs_anon_sym_PIPE, 639, 1, mozjs_sym_arguments, 5, 2,
      mozjs_sym_html_comment, mozjs_sym_comment, 1600, 2, mozjs_anon_sym_PLUS_PLUS,
      mozjs_anon_sym_DASH_DASH, 2172, 2, mozjs_anon_sym_STAR, mozjs_anon_sym_SLASH, 2178, 2,
      mozjs_anon_sym_GT_GT_GT, mozjs_anon_sym_LT_LT, 2182, 2, mozjs_anon_sym_PLUS,
      mozjs_anon_sym_DASH, 2190, 2, mozjs_anon_sym_EQ_EQ, mozjs_anon_sym_BANG_EQ, 2192, 2,
      mozjs_anon_sym_EQ_EQ_EQ, mozjs_anon_sym_BANG_EQ_EQ, 2174, 3, mozjs_anon_sym_in,
      mozjs_anon_sym_LT, mozjs_anon_sym_GT, 2188, 3, mozjs_anon_sym_LT_EQ, mozjs_anon_sym_GT_EQ,
      mozjs_anon_sym_instanceof, 1789, 4, mozjs_sym__ternary_qmark, mozjs_anon_sym_LBRACE,
      mozjs_anon_sym_QMARK_QMARK, mozjs_anon_sym_BQUOTE]"

definition mozjs_small_run_34866 :: "nat list" where
  "mozjs_small_run_34866 =
    [25, 1578, 1, mozjs_anon_sym_LPAREN, 1580, 1, mozjs_anon_sym_LBRACK, 1582, 1,
      mozjs_anon_sym_DOT, 1594, 1, mozjs_sym_optional_chain, 2176, 1, mozjs_anon_sym_GT_GT, 2180,
      1, mozjs_anon_sym_AMP, 2184, 1, mozjs_anon_sym_PERCENT, 2186, 1, mozjs_anon_sym_STAR_STAR,
      2194, 1, mozjs_anon_sym_CARET, 2196, 1, mozjs_anon_sym_AMP_AMP, 2198, 1,
      mozjs_anon_sym_PIPE_PIPE, 2200, 1, mozjs_anon_sym_PIPE, 2202, 1,
      mozjs_anon_sym_QMARK_QMARK, 2204, 1, mozjs_sym__ternary_qmark, 639, 1, mozjs_sym_arguments,
      5, 2, mozjs_sym_html_comment, mozjs_sym_comment, 1600, 2, mozjs_anon_sym_PLUS_PLUS,
      mozjs_anon_sym_DASH_DASH, 1839, 2, mozjs_anon_sym_LBRACE, mozjs_anon_sym_BQUOTE, 2172, 2,
      mozjs_anon_sym_STAR, mozjs_anon_sym_SLASH, 2178, 2, mozjs_anon_sym_GT_GT_GT,
      mozjs_anon_sym_LT_LT, 2182, 2, mozjs_anon_sym_PLUS, mozjs_anon_sym_DASH, 2190, 2,
      mozjs_anon_sym_EQ_EQ, mozjs_anon_sym_BANG_EQ, 2192, 2, mozjs_anon_sym_EQ_EQ_EQ,
      mozjs_anon_sym_BANG_EQ_EQ, 2174, 3, mozjs_anon_sym_in, mozjs_anon_sym_LT,
      mozjs_anon_sym_GT, 2188, 3, mozjs_anon_sym_LT_EQ, mozjs_anon_sym_GT_EQ,
      mozjs_anon_sym_instanceof]"

definition mozjs_small_run_34954 :: "nat list" where
  "mozjs_small_run_34954 =
    [25, 1578, 1, mozjs_anon_sym_LPAREN, 1580, 1, mozjs_anon_sym_LBRACK, 1582, 1,
      mozjs_anon_sym_DOT, 1594, 1, mozjs_sym_optional_chain, 2176, 1, mozjs_anon_sym_GT_GT, 2180,
      1, mozjs_anon_sym_AMP, 2184, 1, mozjs_anon_sym_PERCENT, 2186, 1, mozjs_anon_sym_STAR_STAR,
      2194, 1, mozjs_anon_sym_CARET, 2196, 1, mozjs_anon_sym_AMP_AMP, 2198, 1,
      mozjs_anon_sym_PIPE_PIPE, 2200, 1, mozjs_anon_sym_PIPE, 2202, 1,
      mozjs_anon_sym_QMARK_QMARK, 2204, 1, mozjs_sym__ternary_qmark, 639, 1, mozjs_sym_arguments,
      5, 2, mozjs_sym_html_comment, mozjs_sym_comment, 1600, 2, mozjs_anon_sym_PLUS_PLUS,
      mozjs_anon_sym_DASH_DASH, 1752, 2, mozjs_anon_sym_LBRACE, mozjs_anon_sym_BQUOTE, 2172, 2,
      mozjs_anon_sym_STAR, mozjs_anon_sym_SLASH, 2178, 2, mozjs_anon_sym_GT_GT_GT,
      mozjs_anon_sym_LT_LT, 2182, 2, mozjs_anon_sym_PLUS, mozjs_anon_sym_DASH, 2190, 2,
      mozjs_anon_sym_EQ_EQ, mozjs_anon_sym_BANG_EQ, 2192, 2, mozjs_anon_sym_EQ_EQ_EQ,
      mozjs_anon_sym_BANG_EQ_EQ, 2174, 3, mozjs_anon_sym_in, mozjs_anon_sym_LT,
      mozjs_anon_sym_GT, 2188, 3, mozjs_anon_sym_LT_EQ, mozjs_anon_sym_GT_EQ,
      mozjs_anon_sym_instanceof]"

definition mozjs_small_run_35042 :: "nat list" where
  "mozjs_small_run_35042 =
    [25, 1578, 1, mozjs_anon_sym_LPAREN, 1580, 1, mozjs_anon_sym_LBRACK, 1582, 1,
      mozjs_anon_sym_DOT, 1594, 1, mozjs_sym_optional_chain, 2176, 1, mozjs_anon_sym_GT_GT, 2180,
      1, mozjs_anon_sym_AMP, 2184, 1, mozjs_anon_sym_PERCENT, 2186, 1, mozjs_anon_sym_STAR_STAR,
      2194, 1, mozjs_anon_sym_CARET, 2196, 1, mozjs_anon_sym_AMP_AMP, 2198, 1,
      mozjs_anon_sym_PIPE_PIPE, 2200, 1, mozjs_anon_sym_PIPE, 2202, 1,
      mozjs_anon_sym_QMARK_QMARK, 2204, 1, mozjs_sym__ternary_qmark, 639, 1, mozjs_sym_arguments,
      5, 2, mozjs_sym_html_comment, mozjs_sym_comment, 1600, 2, mozjs_anon_sym_PLUS_PLUS,
      mozjs_anon_sym_DASH_DASH, 1720, 2, mozjs_anon_sym_LBRACE, mozjs_anon_sym_BQUOTE, 2172, 2,
      mozjs_anon_sym_STAR, mozjs_anon_sym_SLASH, 2178, 2, mozjs_anon_sym_GT_GT_GT,
      mozjs_anon_sym_LT_LT, 2182, 2, mozjs_anon_sym_PLUS, mozjs_anon_sym_DASH, 2190, 2,
      mozjs_anon_sym_EQ_EQ, mozjs_anon_sym_BANG_EQ, 2192, 2, mozjs_anon_sym_EQ_EQ_EQ,
      mozjs_anon_sym_BANG_EQ_EQ, 2174, 3, mozjs_anon_sym_in, mozjs_anon_sym_LT,
      mozjs_anon_sym_GT, 2188, 3, mozjs_anon_sym_LT_EQ, mozjs_anon_sym_GT_EQ,
      mozjs_anon_sym_instanceof]"

definition mozjs_small_run_35130 :: "nat list" where
  "mozjs_small_run_35130 =
    [25, 1578, 1, mozjs_anon_sym_LPAREN, 1580, 1, mozjs_anon_sym_LBRACK, 1582, 1,
      mozjs_anon_sym_DOT, 1594, 1, mozjs_sym_optional_chain, 2176, 1, mozjs_anon_sym_GT_GT, 2180,
      1, mozjs_anon_sym_AMP, 2184, 1, mozjs_anon_sym_PERCENT, 2186, 1, mozjs_anon_sym_STAR_STAR,
      2194, 1, mozjs_anon_sym_CARET, 2196, 1, mozjs_anon_sym_AMP_AMP, 2198, 1,
      mozjs_anon_sym_PIPE_PIPE, 2200, 1, mozjs_anon_sym_PIPE, 2202, 1,
      mozjs_anon_sym_QMARK_QMARK, 2204, 1, mozjs_sym__ternary_qmark, 639, 1, mozjs_sym_arguments,
      5, 2, mozjs_sym_html_comment, mozjs_sym_comment, 1600, 2, mozjs_anon_sym_PLUS_PLUS,
      mozjs_anon_sym_DASH_DASH, 1736, 2, mozjs_anon_sym_LBRACE, mozjs_anon_sym_BQUOTE, 2172, 2,
      mozjs_anon_sym_STAR, mozjs_anon_sym_SLASH, 2178, 2, mozjs_anon_sym_GT_GT_GT,
      mozjs_anon_sym_LT_LT, 2182, 2, mozjs_anon_sym_PLUS, mozjs_anon_sym_DASH, 2190, 2,
      mozjs_anon_sym_EQ_EQ, mozjs_anon_sym_BANG_EQ, 2192, 2, mozjs_anon_sym_EQ_EQ_EQ,
      mozjs_anon_sym_BANG_EQ_EQ, 2174, 3, mozjs_anon_sym_in, mozjs_anon_sym_LT,
      mozjs_anon_sym_GT, 2188, 3, mozjs_anon_sym_LT_EQ, mozjs_anon_sym_GT_EQ,
      mozjs_anon_sym_instanceof]"

definition mozjs_small_run_35218 :: "nat list" where
  "mozjs_small_run_35218 =
    [25, 1578, 1, mozjs_anon_sym_LPAREN, 1580, 1, mozjs_anon_sym_LBRACK, 1582, 1,
      mozjs_anon_sym_DOT, 1594, 1, mozjs_sym_optional_chain, 2176, 1, mozjs_anon_sym_GT_GT, 2180,
      1, mozjs_anon_sym_AMP, 2184, 1, mozjs_anon_sym_PERCENT, 2186, 1, mozjs_anon_sym_STAR_STAR,
      2194, 1, mozjs_anon_sym_CARET, 2196, 1, mozjs_anon_sym_AMP_AMP, 2198, 1,
      mozjs_anon_sym_PIPE_PIPE, 2200, 1, mozjs_anon_sym_PIPE, 2202, 1,
      mozjs_anon_sym_QMARK_QMARK, 2204, 1, mozjs_sym__ternary_qmark, 639, 1, mozjs_sym_arguments,
      5, 2, mozjs_sym_html_comment, mozjs_sym_comment, 1600, 2, mozjs_anon_sym_PLUS_PLUS,
      mozjs_anon_sym_DASH_DASH, 1768, 2, mozjs_anon_sym_LBRACE, mozjs_anon_sym_BQUOTE, 2172, 2,
      mozjs_anon_sym_STAR, mozjs_anon_sym_SLASH, 2178, 2, mozjs_anon_sym_GT_GT_GT,
      mozjs_anon_sym_LT_LT, 2182, 2, mozjs_anon_sym_PLUS, mozjs_anon_sym_DASH, 2190, 2,
      mozjs_anon_sym_EQ_EQ, mozjs_anon_sym_BANG_EQ, 2192, 2, mozjs_anon_sym_EQ_EQ_EQ,
      mozjs_anon_sym_BANG_EQ_EQ, 2174, 3, mozjs_anon_sym_in, mozjs_anon_sym_LT,
      mozjs_anon_sym_GT, 2188, 3, mozjs_anon_sym_LT_EQ, mozjs_anon_sym_GT_EQ,
      mozjs_anon_sym_instanceof]"

definition mozjs_small_run_35306 :: "nat list" where
  "mozjs_small_run_35306 =
    [25, 1578, 1, mozjs_anon_sym_LPAREN, 1580, 1, mozjs_anon_sym_LBRACK, 1582, 1,
      mozjs_anon_sym_DOT, 1594, 1, mozjs_sym_optional_chain, 2176, 1, mozjs_anon_sym_GT_GT, 2180,
      1, mozjs_anon_sym_AMP, 2184, 1, mozjs_anon_sym_PERCENT, 2186, 1, mozjs_anon_sym_STAR_STAR,
      2194, 1, mozjs_anon_sym_CARET, 2196, 1, mozjs_anon_sym_AMP_AMP, 2198, 1,
      mozjs_anon_sym_PIPE_PIPE, 2200, 1, mozjs_anon_sym_PIPE, 2202, 1,
      mozjs_anon_sym_QMARK_QMARK, 2204, 1, mozjs_sym__ternary_qmark, 639, 1, mozjs_sym_arguments,
      5, 2, mozjs_sym_html_comment, mozjs_sym_comment, 1600, 2, mozjs_anon_sym_PLUS_PLUS,
      mozjs_anon_sym_DASH_DASH, 1843, 2, mozjs_anon_sym_LBRACE, mozjs_anon_sym_BQUOTE, 2172, 2,
      mozjs_anon_sym_STAR, mozjs_anon_sym_SLASH, 2178, 2, mozjs_anon_sym_GT_GT_GT,
      mozjs_anon_sym_LT_LT, 2182, 2, mozjs_anon_sym_PLUS, mozjs_anon_sym_DASH, 2190, 2,
      mozjs_anon_sym_EQ_EQ, mozjs_anon_sym_BANG_EQ, 2192, 2, mozjs_anon_sym_EQ_EQ_EQ,
      mozjs_anon_sym_BANG_EQ_EQ, 2174, 3, mozjs_anon_sym_in, mozjs_anon_sym_LT,
      mozjs_anon_sym_GT, 2188, 3, mozjs_anon_sym_LT_EQ, mozjs_anon_sym_GT_EQ,
      mozjs_anon_sym_instanceof]"

definition mozjs_small_run_35394 :: "nat list" where
  "mozjs_small_run_35394 =
    [25, 1827, 1, mozjs_anon_sym_LPAREN, 1829, 1, mozjs_anon_sym_LBRACK, 1831, 1,
      mozjs_anon_sym_DOT, 1845, 1, mozjs_sym_optional_chain, 1891, 1, mozjs_anon_sym_AMP_AMP,
      1893, 1, mozjs_anon_sym_PIPE_PIPE, 1895, 1, mozjs_anon_sym_GT_GT, 1899, 1,
      mozjs_anon_sym_AMP, 1901, 1, mozjs_anon_sym_CARET, 1903, 1, mozjs_anon_sym_PIPE, 1907, 1,
      mozjs_anon_sym_PERCENT, 1909, 1, mozjs_anon_sym_STAR_STAR, 1917, 1,
      mozjs_anon_sym_QMARK_QMARK, 1919, 1, mozjs_sym__ternary_qmark, 804, 1, mozjs_sym_arguments,
      5, 2, mozjs_sym_html_comment, mozjs_sym_comment, 1849, 2, mozjs_anon_sym_PLUS_PLUS,
      mozjs_anon_sym_DASH_DASH, 1887, 2, mozjs_anon_sym_STAR, mozjs_anon_sym_SLASH, 1897, 2,
      mozjs_anon_sym_GT_GT_GT, mozjs_anon_sym_LT_LT, 1905, 2, mozjs_anon_sym_PLUS,
      mozjs_anon_sym_DASH, 1913, 2, mozjs_anon_sym_EQ_EQ, mozjs_anon_sym_BANG_EQ, 1915, 2,
      mozjs_anon_sym_EQ_EQ_EQ, mozjs_anon_sym_BANG_EQ_EQ, 2206, 2,
      mozjs_sym__automatic_semicolon, mozjs_anon_sym_SEMI, 1889, 3, mozjs_anon_sym_in,
      mozjs_anon_sym_LT, mozjs_anon_sym_GT, 1911, 3, mozjs_anon_sym_LT_EQ, mozjs_anon_sym_GT_EQ,
      mozjs_anon_sym_instanceof]"

definition mozjs_small_run_35482 :: "nat list" where
  "mozjs_small_run_35482 =
    [25, 1578, 1, mozjs_anon_sym_LPAREN, 1580, 1, mozjs_anon_sym_LBRACK, 1582, 1,
      mozjs_anon_sym_DOT, 1594, 1, mozjs_sym_optional_chain, 1793, 1, mozjs_anon_sym_GT_GT, 1801,
      1, mozjs_anon_sym_PERCENT, 1803, 1, mozjs_anon_sym_STAR_STAR, 1809, 1,
      mozjs_anon_sym_AMP_AMP, 1811, 1, mozjs_anon_sym_PIPE_PIPE, 1813, 1, mozjs_anon_sym_AMP,
      1815, 1, mozjs_anon_sym_CARET, 1817, 1, mozjs_anon_sym_PIPE, 1823, 1,
      mozjs_anon_sym_QMARK_QMARK, 1825, 1, mozjs_sym__ternary_qmark, 639, 1, mozjs_sym_arguments,
      5, 2, mozjs_sym_html_comment, mozjs_sym_comment, 1600, 2, mozjs_anon_sym_PLUS_PLUS,
      mozjs_anon_sym_DASH_DASH, 1787, 2, mozjs_anon_sym_STAR, mozjs_anon_sym_SLASH, 1795, 2,
      mozjs_anon_sym_GT_GT_GT, mozjs_anon_sym_LT_LT, 1799, 2, mozjs_anon_sym_PLUS,
      mozjs_anon_sym_DASH, 1819, 2, mozjs_anon_sym_EQ_EQ, mozjs_anon_sym_BANG_EQ, 1821, 2,
      mozjs_anon_sym_EQ_EQ_EQ, mozjs_anon_sym_BANG_EQ_EQ, 2208, 2, mozjs_anon_sym_COMMA,
      mozjs_anon_sym_RBRACE, 1791, 3, mozjs_anon_sym_in, mozjs_anon_sym_LT, mozjs_anon_sym_GT,
      1805, 3, mozjs_anon_sym_LT_EQ, mozjs_anon_sym_GT_EQ, mozjs_anon_sym_instanceof]"

definition mozjs_small_run_35570 :: "nat list" where
  "mozjs_small_run_35570 =
    [4, 1700, 1, mozjs_sym_regex_flags, 5, 2, mozjs_sym_html_comment, mozjs_sym_comment, 1696,
      14, mozjs_anon_sym_STAR, mozjs_anon_sym_of, mozjs_anon_sym_in, mozjs_anon_sym_LT,
      mozjs_anon_sym_GT, mozjs_anon_sym_GT_GT, mozjs_anon_sym_AMP, mozjs_anon_sym_PIPE,
      mozjs_anon_sym_PLUS, mozjs_anon_sym_DASH, mozjs_anon_sym_SLASH, mozjs_anon_sym_EQ_EQ,
      mozjs_anon_sym_BANG_EQ, mozjs_anon_sym_instanceof, 1698, 20, mozjs_sym__ternary_qmark,
      mozjs_anon_sym_LPAREN, mozjs_anon_sym_LBRACK, mozjs_anon_sym_DOT, mozjs_sym_optional_chain,
      mozjs_anon_sym_AMP_AMP, mozjs_anon_sym_PIPE_PIPE, mozjs_anon_sym_GT_GT_GT,
      mozjs_anon_sym_LT_LT, mozjs_anon_sym_CARET, mozjs_anon_sym_PERCENT,
      mozjs_anon_sym_STAR_STAR, mozjs_anon_sym_LT_EQ, mozjs_anon_sym_EQ_EQ_EQ,
      mozjs_anon_sym_BANG_EQ_EQ, mozjs_anon_sym_GT_EQ, mozjs_anon_sym_QMARK_QMARK,
      mozjs_anon_sym_PLUS_PLUS, mozjs_anon_sym_DASH_DASH, mozjs_anon_sym_BQUOTE]"

definition mozjs_small_run_35616 :: "nat list" where
  "mozjs_small_run_35616 =
    [26, 1827, 1, mozjs_anon_sym_LPAREN, 1829, 1, mozjs_anon_sym_LBRACK, 1831, 1,
      mozjs_anon_sym_DOT, 1845, 1, mozjs_sym_optional_chain, 1891, 1, mozjs_anon_sym_AMP_AMP,
      1893, 1, mozjs_anon_sym_PIPE_PIPE, 1895, 1, mozjs_anon_sym_GT_GT, 1899, 1,
      mozjs_anon_sym_AMP, 1901, 1, mozjs_anon_sym_CARET, 1903, 1, mozjs_anon_sym_PIPE, 1907, 1,
      mozjs_anon_sym_PERCENT, 1909, 1, mozjs_anon_sym_STAR_STAR, 1917, 1,
      mozjs_anon_sym_QMARK_QMARK, 1919, 1, mozjs_sym__ternary_qmark, 2210, 1,
      mozjs_anon_sym_SEMI, 2212, 1, mozjs_sym__automatic_semicolon, 804, 1, mozjs_sym_arguments,
      5, 2, mozjs_sym_html_comment, mozjs_sym_comment, 1849, 2, mozjs_anon_sym_PLUS_PLUS,
      mozjs_anon_sym_DASH_DASH, 1887, 2, mozjs_anon_sym_STAR, mozjs_anon_sym_SLASH, 1897, 2,
      mozjs_anon_sym_GT_GT_GT, mozjs_anon_sym_LT_LT, 1905, 2, mozjs_anon_sym_PLUS,
      mozjs_anon_sym_DASH, 1913, 2, mozjs_anon_sym_EQ_EQ, mozjs_anon_sym_BANG_EQ, 1915, 2,
      mozjs_anon_sym_EQ_EQ_EQ, mozjs_anon_sym_BANG_EQ_EQ, 1889, 3, mozjs_anon_sym_in,
      mozjs_anon_sym_LT, mozjs_anon_sym_GT, 1911, 3, mozjs_anon_sym_LT_EQ, mozjs_anon_sym_GT_EQ,
      mozjs_anon_sym_instanceof]"

definition mozjs_small_run_35706 :: "nat list" where
  "mozjs_small_run_35706 =
    [25, 1578, 1, mozjs_anon_sym_LPAREN, 1580, 1, mozjs_anon_sym_LBRACK, 1582, 1,
      mozjs_anon_sym_DOT, 1594, 1, mozjs_sym_optional_chain, 1793, 1, mozjs_anon_sym_GT_GT, 1801,
      1, mozjs_anon_sym_PERCENT, 1803, 1, mozjs_anon_sym_STAR_STAR, 1809, 1,
      mozjs_anon_sym_AMP_AMP, 1811, 1, mozjs_anon_sym_PIPE_PIPE, 1813, 1, mozjs_anon_sym_AMP,
      1815, 1, mozjs_anon_sym_CARET, 1817, 1, mozjs_anon_sym_PIPE, 1823, 1,
      mozjs_anon_sym_QMARK_QMARK, 1825, 1, mozjs_sym__ternary_qmark, 639, 1, mozjs_sym_arguments,
      5, 2, mozjs_sym_html_comment, mozjs_sym_comment, 1600, 2, mozjs_anon_sym_PLUS_PLUS,
      mozjs_anon_sym_DASH_DASH, 1787, 2, mozjs_anon_sym_STAR, mozjs_anon_sym_SLASH, 1795, 2,
      mozjs_anon_sym_GT_GT_GT, mozjs_anon_sym_LT_LT, 1799, 2, mozjs_anon_sym_PLUS,
      mozjs_anon_sym_DASH, 1819, 2, mozjs_anon_sym_EQ_EQ, mozjs_anon_sym_BANG_EQ, 1821, 2,
      mozjs_anon_sym_EQ_EQ_EQ, mozjs_anon_sym_BANG_EQ_EQ, 1948, 2, mozjs_anon_sym_COMMA,
      mozjs_anon_sym_RBRACE, 1791, 3, mozjs_anon_sym_in, mozjs_anon_sym_LT, mozjs_anon_sym_GT,
      1805, 3, mozjs_anon_sym_LT_EQ, mozjs_anon_sym_GT_EQ, mozjs_anon_sym_instanceof]"

definition mozjs_small_run_35794 :: "nat list" where
  "mozjs_small_run_35794 =
    [25, 1578, 1, mozjs_anon_sym_LPAREN, 1580, 1, mozjs_anon_sym_LBRACK, 1582, 1,
      mozjs_anon_sym_DOT, 1594, 1, mozjs_sym_optional_chain, 1793, 1, mozjs_anon_sym_GT_GT, 1801,
      1, mozjs_anon_sym_PERCENT, 1803, 1, mozjs_anon_sym_STAR_STAR, 1809, 1,
      mozjs_anon_sym_AMP_AMP, 1811, 1, mozjs_anon_sym_PIPE_PIPE, 1813, 1, mozjs_anon_sym_AMP,
      1815, 1, mozjs_anon_sym_CARET, 1817, 1, mozjs_anon_sym_PIPE, 1823, 1,
      mozjs_anon_sym_QMARK_QMARK, 1825, 1, mozjs_sym__ternary_qmark, 639, 1, mozjs_sym_arguments,
      5, 2, mozjs_sym_html_comment, mozjs_sym_comment, 1600, 2, mozjs_anon_sym_PLUS_PLUS,
      mozjs_anon_sym_DASH_DASH, 1787, 2, mozjs_anon_sym_STAR, mozjs_anon_sym_SLASH, 1795, 2,
      mozjs_anon_sym_GT_GT_GT, mozjs_anon_sym_LT_LT, 1799, 2, mozjs_anon_sym_PLUS,
      mozjs_anon_sym_DASH, 1819, 2, mozjs_anon_sym_EQ_EQ, mozjs_anon_sym_BANG_EQ, 1821, 2,
      mozjs_anon_sym_EQ_EQ_EQ, mozjs_anon_sym_BANG_EQ_EQ, 1943, 2, mozjs_anon_sym_COMMA,
      mozjs_anon_sym_RBRACE, 1791, 3, mozjs_anon_sym_in, mozjs_anon_sym_LT, mozjs_anon_sym_GT,
      1805, 3, mozjs_anon_sym_LT_EQ, mozjs_anon_sym_GT_EQ, mozjs_anon_sym_instanceof]"

definition mozjs_small_run_35882 :: "nat list" where
  "mozjs_small_run_35882 =
    [25, 1578, 1, mozjs_anon_sym_LPAREN, 1580, 1, mozjs_anon_sym_LBRACK, 1582, 1,
      mozjs_anon_sym_DOT, 1594, 1, mozjs_sym_optional_chain, 2176, 1, mozjs_anon_sym_GT_GT, 2180,
      1, mozjs_anon_sym_AMP, 2184, 1, mozjs_anon_sym_PERCENT, 2186, 1, mozjs_anon_sym_STAR_STAR,
      2194, 1, mozjs_anon_sym_CARET, 2196, 1, mozjs_anon_sym_AMP_AMP, 2198, 1,
      mozjs_anon_sym_PIPE_PIPE, 2200, 1, mozjs_anon_sym_PIPE, 2202, 1,
      mozjs_anon_sym_QMARK_QMARK, 2204, 1, mozjs_sym__ternary_qmark, 639, 1, mozjs_sym_arguments,
      5, 2, mozjs_sym_html_comment, mozjs_sym_comment, 1600, 2, mozjs_anon_sym_PLUS_PLUS,
      mozjs_anon_sym_DASH_DASH, 1841, 2, mozjs_anon_sym_LBRACE, mozjs_anon_sym_BQUOTE, 2172, 2,
      mozjs_anon_sym_STAR, mozjs_anon_sym_SLASH, 2178, 2, mozjs_anon_sym_GT_GT_GT,
      mozjs_anon_sym_LT_LT, 2182, 2, mozjs_anon_sym_PLUS, mozjs_anon_sym_DASH, 2190, 2,
      mozjs_anon_sym_EQ_EQ, mozjs_anon_sym_BANG_EQ, 2192, 2, mozjs_anon_sym_EQ_EQ_EQ,
      mozjs_anon_sym_BANG_EQ_EQ, 2174, 3, mozjs_anon_sym_in, mozjs_anon_sym_LT,
      mozjs_anon_sym_GT, 2188, 3, mozjs_anon_sym_LT_EQ, mozjs_anon_sym_GT_EQ,
      mozjs_anon_sym_instanceof]"

definition mozjs_small_run_35970 :: "nat list" where
  "mozjs_small_run_35970 =
    [4, 1566, 1, mozjs_anon_sym_EQ, 5, 2, mozjs_sym_html_comment, mozjs_sym_comment, 1435, 12,
      mozjs_anon_sym_STAR, mozjs_anon_sym_in, mozjs_anon_sym_LT, mozjs_anon_sym_GT,
      mozjs_anon_sym_GT_GT, mozjs_anon_sym_AMP, mozjs_anon_sym_PIPE, mozjs_anon_sym_PLUS,
      mozjs_anon_sym_DASH, mozjs_anon_sym_SLASH, mozjs_anon_sym_EQ_EQ, mozjs_anon_sym_BANG_EQ,
      1437, 22, mozjs_sym__ternary_qmark, mozjs_anon_sym_LBRACE, mozjs_anon_sym_LPAREN,
      mozjs_anon_sym_LBRACK, mozjs_anon_sym_DOT, mozjs_sym_optional_chain,
      mozjs_anon_sym_AMP_AMP, mozjs_anon_sym_PIPE_PIPE, mozjs_anon_sym_GT_GT_GT,
      mozjs_anon_sym_LT_LT, mozjs_anon_sym_CARET, mozjs_anon_sym_PERCENT,
      mozjs_anon_sym_STAR_STAR, mozjs_anon_sym_LT_EQ, mozjs_anon_sym_EQ_EQ_EQ,
      mozjs_anon_sym_BANG_EQ_EQ, mozjs_anon_sym_GT_EQ, mozjs_anon_sym_QMARK_QMARK,
      mozjs_anon_sym_instanceof, mozjs_anon_sym_PLUS_PLUS, mozjs_anon_sym_DASH_DASH,
      mozjs_anon_sym_BQUOTE]"

definition mozjs_small_run_36016 :: "nat list" where
  "mozjs_small_run_36016 =
    [25, 1578, 1, mozjs_anon_sym_LPAREN, 1580, 1, mozjs_anon_sym_LBRACK, 1582, 1,
      mozjs_anon_sym_DOT, 1594, 1, mozjs_sym_optional_chain, 2176, 1, mozjs_anon_sym_GT_GT, 2180,
      1, mozjs_anon_sym_AMP, 2184, 1, mozjs_anon_sym_PERCENT, 2186, 1, mozjs_anon_sym_STAR_STAR,
      2194, 1, mozjs_anon_sym_CARET, 2196, 1, mozjs_anon_sym_AMP_AMP, 2198, 1,
      mozjs_anon_sym_PIPE_PIPE, 2200, 1, mozjs_anon_sym_PIPE, 2202, 1,
      mozjs_anon_sym_QMARK_QMARK, 2204, 1, mozjs_sym__ternary_qmark, 639, 1, mozjs_sym_arguments,
      5, 2, mozjs_sym_html_comment, mozjs_sym_comment, 1600, 2, mozjs_anon_sym_PLUS_PLUS,
      mozjs_anon_sym_DASH_DASH, 1630, 2, mozjs_anon_sym_LBRACE, mozjs_anon_sym_BQUOTE, 2172, 2,
      mozjs_anon_sym_STAR, mozjs_anon_sym_SLASH, 2178, 2, mozjs_anon_sym_GT_GT_GT,
      mozjs_anon_sym_LT_LT, 2182, 2, mozjs_anon_sym_PLUS, mozjs_anon_sym_DASH, 2190, 2,
      mozjs_anon_sym_EQ_EQ, mozjs_anon_sym_BANG_EQ, 2192, 2, mozjs_anon_sym_EQ_EQ_EQ,
      mozjs_anon_sym_BANG_EQ_EQ, 2174, 3, mozjs_anon_sym_in, mozjs_anon_sym_LT,
      mozjs_anon_sym_GT, 2188, 3, mozjs_anon_sym_LT_EQ, mozjs_anon_sym_GT_EQ,
      mozjs_anon_sym_instanceof]"

definition mozjs_small_run_36104 :: "nat list" where
  "mozjs_small_run_36104 =
    [25, 1578, 1, mozjs_anon_sym_LPAREN, 1580, 1, mozjs_anon_sym_LBRACK, 1582, 1,
      mozjs_anon_sym_DOT, 1594, 1, mozjs_sym_optional_chain, 2176, 1, mozjs_anon_sym_GT_GT, 2180,
      1, mozjs_anon_sym_AMP, 2184, 1, mozjs_anon_sym_PERCENT, 2186, 1, mozjs_anon_sym_STAR_STAR,
      2194, 1, mozjs_anon_sym_CARET, 2196, 1, mozjs_anon_sym_AMP_AMP, 2198, 1,
      mozjs_anon_sym_PIPE_PIPE, 2200, 1, mozjs_anon_sym_PIPE, 2202, 1,
      mozjs_anon_sym_QMARK_QMARK, 2204, 1, mozjs_sym__ternary_qmark, 639, 1, mozjs_sym_arguments,
      5, 2, mozjs_sym_html_comment, mozjs_sym_comment, 1600, 2, mozjs_anon_sym_PLUS_PLUS,
      mozjs_anon_sym_DASH_DASH, 1807, 2, mozjs_anon_sym_LBRACE, mozjs_anon_sym_BQUOTE, 2172, 2,
      mozjs_anon_sym_STAR, mozjs_anon_sym_SLASH, 2178, 2, mozjs_anon_sym_GT_GT_GT,
      mozjs_anon_sym_LT_LT, 2182, 2, mozjs_anon_sym_PLUS, mozjs_anon_sym_DASH, 2190, 2,
      mozjs_anon_sym_EQ_EQ, mozjs_anon_sym_BANG_EQ, 2192, 2, mozjs_anon_sym_EQ_EQ_EQ,
      mozjs_anon_sym_BANG_EQ_EQ, 2174, 3, mozjs_anon_sym_in, mozjs_anon_sym_LT,
      mozjs_anon_sym_GT, 2188, 3, mozjs_anon_sym_LT_EQ, mozjs_anon_sym_GT_EQ,
      mozjs_anon_sym_instanceof]"

definition mozjs_small_run_36192 :: "nat list" where
  "mozjs_small_run_36192 =
    [25, 1578, 1, mozjs_anon_sym_LPAREN, 1580, 1, mozjs_anon_sym_LBRACK, 1582, 1,
      mozjs_anon_sym_DOT, 1594, 1, mozjs_sym_optional_chain, 2176, 1, mozjs_anon_sym_GT_GT, 2180,
      1, mozjs_anon_sym_AMP, 2184, 1, mozjs_anon_sym_PERCENT, 2186, 1, mozjs_anon_sym_STAR_STAR,
      2194, 1, mozjs_anon_sym_CARET, 2196, 1, mozjs_anon_sym_AMP_AMP, 2198, 1,
      mozjs_anon_sym_PIPE_PIPE, 2200, 1, mozjs_anon_sym_PIPE, 2202, 1,
      mozjs_anon_sym_QMARK_QMARK, 2204, 1, mozjs_sym__ternary_qmark, 639, 1, mozjs_sym_arguments,
      5, 2, mozjs_sym_html_comment, mozjs_sym_comment, 1600, 2, mozjs_anon_sym_PLUS_PLUS,
      mozjs_anon_sym_DASH_DASH, 1835, 2, mozjs_anon_sym_LBRACE, mozjs_anon_sym_BQUOTE, 2172, 2,
      mozjs_anon_sym_STAR, mozjs_anon_sym_SLASH, 2178, 2, mozjs_anon_sym_GT_GT_GT,
      mozjs_anon_sym_LT_LT, 2182, 2, mozjs_anon_sym_PLUS, mozjs_anon_sym_DASH, 2190, 2,
      mozjs_anon_sym_EQ_EQ, mozjs_anon_sym_BANG_EQ, 2192, 2, mozjs_anon_sym_EQ_EQ_EQ,
      mozjs_anon_sym_BANG_EQ_EQ, 2174, 3, mozjs_anon_sym_in, mozjs_anon_sym_LT,
      mozjs_anon_sym_GT, 2188, 3, mozjs_anon_sym_LT_EQ, mozjs_anon_sym_GT_EQ,
      mozjs_anon_sym_instanceof]"

definition mozjs_small_run_36280 :: "nat list" where
  "mozjs_small_run_36280 =
    [25, 1578, 1, mozjs_anon_sym_LPAREN, 1580, 1, mozjs_anon_sym_LBRACK, 1582, 1,
      mozjs_anon_sym_DOT, 1594, 1, mozjs_sym_optional_chain, 2218, 1, mozjs_anon_sym_AMP_AMP,
      2220, 1, mozjs_anon_sym_PIPE_PIPE, 2222, 1, mozjs_anon_sym_GT_GT, 2226, 1,
      mozjs_anon_sym_AMP, 2228, 1, mozjs_anon_sym_CARET, 2230, 1, mozjs_anon_sym_PIPE, 2234, 1,
      mozjs_anon_sym_PERCENT, 2236, 1, mozjs_anon_sym_STAR_STAR, 2244, 1,
      mozjs_anon_sym_QMARK_QMARK, 2246, 1, mozjs_sym__ternary_qmark, 639, 1, mozjs_sym_arguments,
      5, 2, mozjs_sym_html_comment, mozjs_sym_comment, 1600, 2, mozjs_anon_sym_PLUS_PLUS,
      mozjs_anon_sym_DASH_DASH, 1841, 2, mozjs_anon_sym_COLON, mozjs_anon_sym_BQUOTE, 2214, 2,
      mozjs_anon_sym_STAR, mozjs_anon_sym_SLASH, 2224, 2, mozjs_anon_sym_GT_GT_GT,
      mozjs_anon_sym_LT_LT, 2232, 2, mozjs_anon_sym_PLUS, mozjs_anon_sym_DASH, 2240, 2,
      mozjs_anon_sym_EQ_EQ, mozjs_anon_sym_BANG_EQ, 2242, 2, mozjs_anon_sym_EQ_EQ_EQ,
      mozjs_anon_sym_BANG_EQ_EQ, 2216, 3, mozjs_anon_sym_in, mozjs_anon_sym_LT,
      mozjs_anon_sym_GT, 2238, 3, mozjs_anon_sym_LT_EQ, mozjs_anon_sym_GT_EQ,
      mozjs_anon_sym_instanceof]"

definition mozjs_small_run_36368 :: "nat list" where
  "mozjs_small_run_36368 =
    [25, 1578, 1, mozjs_anon_sym_LPAREN, 1580, 1, mozjs_anon_sym_LBRACK, 1582, 1,
      mozjs_anon_sym_DOT, 1594, 1, mozjs_sym_optional_chain, 2218, 1, mozjs_anon_sym_AMP_AMP,
      2220, 1, mozjs_anon_sym_PIPE_PIPE, 2222, 1, mozjs_anon_sym_GT_GT, 2226, 1,
      mozjs_anon_sym_AMP, 2228, 1, mozjs_anon_sym_CARET, 2230, 1, mozjs_anon_sym_PIPE, 2234, 1,
      mozjs_anon_sym_PERCENT, 2236, 1, mozjs_anon_sym_STAR_STAR, 2244, 1,
      mozjs_anon_sym_QMARK_QMARK, 2246, 1, mozjs_sym__ternary_qmark, 639, 1, mozjs_sym_arguments,
      5, 2, mozjs_sym_html_comment, mozjs_sym_comment, 1600, 2, mozjs_anon_sym_PLUS_PLUS,
      mozjs_anon_sym_DASH_DASH, 1630, 2, mozjs_anon_sym_COLON, mozjs_anon_sym_BQUOTE, 2214, 2,
      mozjs_anon_sym_STAR, mozjs_anon_sym_SLASH, 2224, 2, mozjs_anon_sym_GT_GT_GT,
      mozjs_anon_sym_LT_LT, 2232, 2, mozjs_anon_sym_PLUS, mozjs_anon_sym_DASH, 2240, 2,
      mozjs_anon_sym_EQ_EQ, mozjs_anon_sym_BANG_EQ, 2242, 2, mozjs_anon_sym_EQ_EQ_EQ,
      mozjs_anon_sym_BANG_EQ_EQ, 2216, 3, mozjs_anon_sym_in, mozjs_anon_sym_LT,
      mozjs_anon_sym_GT, 2238, 3, mozjs_anon_sym_LT_EQ, mozjs_anon_sym_GT_EQ,
      mozjs_anon_sym_instanceof]"

definition mozjs_small_run_36456 :: "nat list" where
  "mozjs_small_run_36456 =
    [25, 1578, 1, mozjs_anon_sym_LPAREN, 1580, 1, mozjs_anon_sym_LBRACK, 1582, 1,
      mozjs_anon_sym_DOT, 1594, 1, mozjs_sym_optional_chain, 2218, 1, mozjs_anon_sym_AMP_AMP,
      2220, 1, mozjs_anon_sym_PIPE_PIPE, 2222, 1, mozjs_anon_sym_GT_GT, 2226, 1,
      mozjs_anon_sym_AMP, 2228, 1, mozjs_anon_sym_CARET, 2230, 1, mozjs_anon_sym_PIPE, 2234, 1,
      mozjs_anon_sym_PERCENT, 2236, 1, mozjs_anon_sym_STAR_STAR, 2244, 1,
      mozjs_anon_sym_QMARK_QMARK, 2246, 1, mozjs_sym__ternary_qmark, 639, 1, mozjs_sym_arguments,
      5, 2, mozjs_sym_html_comment, mozjs_sym_comment, 1600, 2, mozjs_anon_sym_PLUS_PLUS,
      mozjs_anon_sym_DASH_DASH, 1835, 2, mozjs_anon_sym_COLON, mozjs_anon_sym_BQUOTE, 2214, 2,
      mozjs_anon_sym_STAR, mozjs_anon_sym_SLASH, 2224, 2, mozjs_anon_sym_GT_GT_GT,
      mozjs_anon_sym_LT_LT, 2232, 2, mozjs_anon_sym_PLUS, mozjs_anon_sym_DASH, 2240, 2,
      mozjs_anon_sym_EQ_EQ, mozjs_anon_sym_BANG_EQ, 2242, 2, mozjs_anon_sym_EQ_EQ_EQ,
      mozjs_anon_sym_BANG_EQ_EQ, 2216, 3, mozjs_anon_sym_in, mozjs_anon_sym_LT,
      mozjs_anon_sym_GT, 2238, 3, mozjs_anon_sym_LT_EQ, mozjs_anon_sym_GT_EQ,
      mozjs_anon_sym_instanceof]"

definition mozjs_small_run_36544 :: "nat list" where
  "mozjs_small_run_36544 =
    [25, 1578, 1, mozjs_anon_sym_LPAREN, 1580, 1, mozjs_anon_sym_LBRACK, 1582, 1,
      mozjs_anon_sym_DOT, 1594, 1, mozjs_sym_optional_chain, 2176, 1, mozjs_anon_sym_GT_GT, 2180,
      1, mozjs_anon_sym_AMP, 2184, 1, mozjs_anon_sym_PERCENT, 2186, 1, mozjs_anon_sym_STAR_STAR,
      2194, 1, mozjs_anon_sym_CARET, 2196, 1, mozjs_anon_sym_AMP_AMP, 2198, 1,
      mozjs_anon_sym_PIPE_PIPE, 2200, 1, mozjs_anon_sym_PIPE, 2202, 1,
      mozjs_anon_sym_QMARK_QMARK, 2204, 1, mozjs_sym__ternary_qmark, 639, 1, mozjs_sym_arguments,
      5, 2, mozjs_sym_html_comment, mozjs_sym_comment, 1600, 2, mozjs_anon_sym_PLUS_PLUS,
      mozjs_anon_sym_DASH_DASH, 1837, 2, mozjs_anon_sym_LBRACE, mozjs_anon_sym_BQUOTE, 2172, 2,
      mozjs_anon_sym_STAR, mozjs_anon_sym_SLASH, 2178, 2, mozjs_anon_sym_GT_GT_GT,
      mozjs_anon_sym_LT_LT, 2182, 2, mozjs_anon_sym_PLUS, mozjs_anon_sym_DASH, 2190, 2,
      mozjs_anon_sym_EQ_EQ, mozjs_anon_sym_BANG_EQ, 2192, 2, mozjs_anon_sym_EQ_EQ_EQ,
      mozjs_anon_sym_BANG_EQ_EQ, 2174, 3, mozjs_anon_sym_in, mozjs_anon_sym_LT,
      mozjs_anon_sym_GT, 2188, 3, mozjs_anon_sym_LT_EQ, mozjs_anon_sym_GT_EQ,
      mozjs_anon_sym_instanceof]"

definition mozjs_small_run_36632 :: "nat list" where
  "mozjs_small_run_36632 =
    [25, 1578, 1, mozjs_anon_sym_LPAREN, 1580, 1, mozjs_anon_sym_LBRACK, 1582, 1,
      mozjs_anon_sym_DOT, 1594, 1, mozjs_sym_optional_chain, 2218, 1, mozjs_anon_sym_AMP_AMP,
      2220, 1, mozjs_anon_sym_PIPE_PIPE, 2222, 1, mozjs_anon_sym_GT_GT, 2226, 1,
      mozjs_anon_sym_AMP, 2228, 1, mozjs_anon_sym_CARET, 2230, 1, mozjs_anon_sym_PIPE, 2234, 1,
      mozjs_anon_sym_PERCENT, 2236, 1, mozjs_anon_sym_STAR_STAR, 2244, 1,
      mozjs_anon_sym_QMARK_QMARK, 2246, 1, mozjs_sym__ternary_qmark, 639, 1, mozjs_sym_arguments,
      5, 2, mozjs_sym_html_comment, mozjs_sym_comment, 1600, 2, mozjs_anon_sym_PLUS_PLUS,
      mozjs_anon_sym_DASH_DASH, 1837, 2, mozjs_anon_sym_COLON, mozjs_anon_sym_BQUOTE, 2214, 2,
      mozjs_anon_sym_STAR, mozjs_anon_sym_SLASH, 2224, 2, mozjs_anon_sym_GT_GT_GT,
      mozjs_anon_sym_LT_LT, 2232, 2, mozjs_anon_sym_PLUS, mozjs_anon_sym_DASH, 2240, 2,
      mozjs_anon_sym_EQ_EQ, mozjs_anon_sym_BANG_EQ, 2242, 2, mozjs_anon_sym_EQ_EQ_EQ,
      mozjs_anon_sym_BANG_EQ_EQ, 2216, 3, mozjs_anon_sym_in, mozjs_anon_sym_LT,
      mozjs_anon_sym_GT, 2238, 3, mozjs_anon_sym_LT_EQ, mozjs_anon_sym_GT_EQ,
      mozjs_anon_sym_instanceof]"

definition mozjs_small_run_36720 :: "nat list" where
  "mozjs_small_run_36720 =
    [25, 1578, 1, mozjs_anon_sym_LPAREN, 1580, 1, mozjs_anon_sym_LBRACK, 1582, 1,
      mozjs_anon_sym_DOT, 1594, 1, mozjs_sym_optional_chain, 2218, 1, mozjs_anon_sym_AMP_AMP,
      2220, 1, mozjs_anon_sym_PIPE_PIPE, 2222, 1, mozjs_anon_sym_GT_GT, 2226, 1,
      mozjs_anon_sym_AMP, 2228, 1, mozjs_anon_sym_CARET, 2230, 1, mozjs_anon_sym_PIPE, 2234, 1,
      mozjs_anon_sym_PERCENT, 2236, 1, mozjs_anon_sym_STAR_STAR, 2244, 1,
      mozjs_anon_sym_QMARK_QMARK, 2246, 1, mozjs_sym__ternary_qmark, 639, 1, mozjs_sym_arguments,
      5, 2, mozjs_sym_html_comment, mozjs_sym_comment, 1600, 2, mozjs_anon_sym_PLUS_PLUS,
      mozjs_anon_sym_DASH_DASH, 1708, 2, mozjs_anon_sym_COLON, mozjs_anon_sym_BQUOTE, 2214, 2,
      mozjs_anon_sym_STAR, mozjs_anon_sym_SLASH, 2224, 2, mozjs_anon_sym_GT_GT_GT,
      mozjs_anon_sym_LT_LT, 2232, 2, mozjs_anon_sym_PLUS, mozjs_anon_sym_DASH, 2240, 2,
      mozjs_anon_sym_EQ_EQ, mozjs_anon_sym_BANG_EQ, 2242, 2, mozjs_anon_sym_EQ_EQ_EQ,
      mozjs_anon_sym_BANG_EQ_EQ, 2216, 3, mozjs_anon_sym_in, mozjs_anon_sym_LT,
      mozjs_anon_sym_GT, 2238, 3, mozjs_anon_sym_LT_EQ, mozjs_anon_sym_GT_EQ,
      mozjs_anon_sym_instanceof]"

definition mozjs_small_run_36808 :: "nat list" where
  "mozjs_small_run_36808 =
    [15, 1578, 1, mozjs_anon_sym_LPAREN, 1580, 1, mozjs_anon_sym_LBRACK, 1582, 1,
      mozjs_anon_sym_DOT, 1594, 1, mozjs_sym_optional_chain, 2222, 1, mozjs_anon_sym_GT_GT, 2234,
      1, mozjs_anon_sym_PERCENT, 2236, 1, mozjs_anon_sym_STAR_STAR, 639, 1, mozjs_sym_arguments,
      5, 2, mozjs_sym_html_comment, mozjs_sym_comment, 1600, 2, mozjs_anon_sym_PLUS_PLUS,
      mozjs_anon_sym_DASH_DASH, 2214, 2, mozjs_anon_sym_STAR, mozjs_anon_sym_SLASH, 2224, 2,
      mozjs_anon_sym_GT_GT_GT, mozjs_anon_sym_LT_LT, 2232, 2, mozjs_anon_sym_PLUS,
      mozjs_anon_sym_DASH, 1797, 7, mozjs_anon_sym_in, mozjs_anon_sym_LT, mozjs_anon_sym_GT,
      mozjs_anon_sym_AMP, mozjs_anon_sym_PIPE, mozjs_anon_sym_EQ_EQ, mozjs_anon_sym_BANG_EQ,
      1789, 12, mozjs_sym__ternary_qmark, mozjs_anon_sym_COLON, mozjs_anon_sym_AMP_AMP,
      mozjs_anon_sym_PIPE_PIPE, mozjs_anon_sym_CARET, mozjs_anon_sym_LT_EQ,
      mozjs_anon_sym_EQ_EQ_EQ, mozjs_anon_sym_BANG_EQ_EQ, mozjs_anon_sym_GT_EQ,
      mozjs_anon_sym_QMARK_QMARK, mozjs_anon_sym_instanceof, mozjs_anon_sym_BQUOTE]"

definition mozjs_small_run_36876 :: "nat list" where
  "mozjs_small_run_36876 =
    [10, 1578, 1, mozjs_anon_sym_LPAREN, 1580, 1, mozjs_anon_sym_LBRACK, 1582, 1,
      mozjs_anon_sym_DOT, 1594, 1, mozjs_sym_optional_chain, 2236, 1, mozjs_anon_sym_STAR_STAR,
      639, 1, mozjs_sym_arguments, 5, 2, mozjs_sym_html_comment, mozjs_sym_comment, 1600, 2,
      mozjs_anon_sym_PLUS_PLUS, mozjs_anon_sym_DASH_DASH, 1797, 12, mozjs_anon_sym_STAR,
      mozjs_anon_sym_in, mozjs_anon_sym_LT, mozjs_anon_sym_GT, mozjs_anon_sym_GT_GT,
      mozjs_anon_sym_AMP, mozjs_anon_sym_PIPE, mozjs_anon_sym_PLUS, mozjs_anon_sym_DASH,
      mozjs_anon_sym_SLASH, mozjs_anon_sym_EQ_EQ, mozjs_anon_sym_BANG_EQ, 1789, 15,
      mozjs_sym__ternary_qmark, mozjs_anon_sym_COLON, mozjs_anon_sym_AMP_AMP,
      mozjs_anon_sym_PIPE_PIPE, mozjs_anon_sym_GT_GT_GT, mozjs_anon_sym_LT_LT,
      mozjs_anon_sym_CARET, mozjs_anon_sym_PERCENT, mozjs_anon_sym_LT_EQ,
      mozjs_anon_sym_EQ_EQ_EQ, mozjs_anon_sym_BANG_EQ_EQ, mozjs_anon_sym_GT_EQ,
      mozjs_anon_sym_QMARK_QMARK, mozjs_anon_sym_instanceof, mozjs_anon_sym_BQUOTE]"

definition mozjs_small_run_36934 :: "nat list" where
  "mozjs_small_run_36934 =
    [21, 1578, 1, mozjs_anon_sym_LPAREN, 1580, 1, mozjs_anon_sym_LBRACK, 1582, 1,
      mozjs_anon_sym_DOT, 1594, 1, mozjs_sym_optional_chain, 2222, 1, mozjs_anon_sym_GT_GT, 2226,
      1, mozjs_anon_sym_AMP, 2228, 1, mozjs_anon_sym_CARET, 2230, 1, mozjs_anon_sym_PIPE, 2234,
      1, mozjs_anon_sym_PERCENT, 2236, 1, mozjs_anon_sym_STAR_STAR, 639, 1, mozjs_sym_arguments,
      5, 2, mozjs_sym_html_comment, mozjs_sym_comment, 1600, 2, mozjs_anon_sym_PLUS_PLUS,
      mozjs_anon_sym_DASH_DASH, 2214, 2, mozjs_anon_sym_STAR, mozjs_anon_sym_SLASH, 2224, 2,
      mozjs_anon_sym_GT_GT_GT, mozjs_anon_sym_LT_LT, 2232, 2, mozjs_anon_sym_PLUS,
      mozjs_anon_sym_DASH, 2240, 2, mozjs_anon_sym_EQ_EQ, mozjs_anon_sym_BANG_EQ, 2242, 2,
      mozjs_anon_sym_EQ_EQ_EQ, mozjs_anon_sym_BANG_EQ_EQ, 2216, 3, mozjs_anon_sym_in,
      mozjs_anon_sym_LT, mozjs_anon_sym_GT, 2238, 3, mozjs_anon_sym_LT_EQ, mozjs_anon_sym_GT_EQ,
      mozjs_anon_sym_instanceof, 1789, 6, mozjs_sym__ternary_qmark, mozjs_anon_sym_COLON,
      mozjs_anon_sym_AMP_AMP, mozjs_anon_sym_PIPE_PIPE, mozjs_anon_sym_QMARK_QMARK,
      mozjs_anon_sym_BQUOTE]"

definition mozjs_small_run_37014 :: "nat list" where
  "mozjs_small_run_37014 =
    [22, 1578, 1, mozjs_anon_sym_LPAREN, 1580, 1, mozjs_anon_sym_LBRACK, 1582, 1,
      mozjs_anon_sym_DOT, 1594, 1, mozjs_sym_optional_chain, 2218, 1, mozjs_anon_sym_AMP_AMP,
      2222, 1, mozjs_anon_sym_GT_GT, 2226, 1, mozjs_anon_sym_AMP, 2228, 1, mozjs_anon_sym_CARET,
      2230, 1, mozjs_anon_sym_PIPE, 2234, 1, mozjs_anon_sym_PERCENT, 2236, 1,
      mozjs_anon_sym_STAR_STAR, 639, 1, mozjs_sym_arguments, 5, 2, mozjs_sym_html_comment,
      mozjs_sym_comment, 1600, 2, mozjs_anon_sym_PLUS_PLUS, mozjs_anon_sym_DASH_DASH, 2214, 2,
      mozjs_anon_sym_STAR, mozjs_anon_sym_SLASH, 2224, 2, mozjs_anon_sym_GT_GT_GT,
      mozjs_anon_sym_LT_LT, 2232, 2, mozjs_anon_sym_PLUS, mozjs_anon_sym_DASH, 2240, 2,
      mozjs_anon_sym_EQ_EQ, mozjs_anon_sym_BANG_EQ, 2242, 2, mozjs_anon_sym_EQ_EQ_EQ,
      mozjs_anon_sym_BANG_EQ_EQ, 2216, 3, mozjs_anon_sym_in, mozjs_anon_sym_LT,
      mozjs_anon_sym_GT, 2238, 3, mozjs_anon_sym_LT_EQ, mozjs_anon_sym_GT_EQ,
      mozjs_anon_sym_instanceof, 1789, 5, mozjs_sym__ternary_qmark, mozjs_anon_sym_COLON,
      mozjs_anon_sym_PIPE_PIPE, mozjs_anon_sym_QMARK_QMARK, mozjs_anon_sym_BQUOTE]"

definition mozjs_small_run_37096 :: "nat list" where
  "mozjs_small_run_37096 =
    [13, 1578, 1, mozjs_anon_sym_LPAREN, 1580, 1, mozjs_anon_sym_LBRACK, 1582, 1,
      mozjs_anon_sym_DOT, 1594, 1, mozjs_sym_optional_chain, 2234, 1, mozjs_anon_sym_PERCENT,
      2236, 1, mozjs_anon_sym_STAR_STAR, 639, 1, mozjs_sym_arguments, 5, 2,
      mozjs_sym_html_comment, mozjs_sym_comment, 1600, 2, mozjs_anon_sym_PLUS_PLUS,
      mozjs_anon_sym_DASH_DASH, 2214, 2, mozjs_anon_sym_STAR, mozjs_anon_sym_SLASH, 2232, 2,
      mozjs_anon_sym_PLUS, mozjs_anon_sym_DASH, 1797, 8, mozjs_anon_sym_in, mozjs_anon_sym_LT,
      mozjs_anon_sym_GT, mozjs_anon_sym_GT_GT, mozjs_anon_sym_AMP, mozjs_anon_sym_PIPE,
      mozjs_anon_sym_EQ_EQ, mozjs_anon_sym_BANG_EQ, 1789, 14, mozjs_sym__ternary_qmark,
      mozjs_anon_sym_COLON, mozjs_anon_sym_AMP_AMP, mozjs_anon_sym_PIPE_PIPE,
      mozjs_anon_sym_GT_GT_GT, mozjs_anon_sym_LT_LT, mozjs_anon_sym_CARET, mozjs_anon_sym_LT_EQ,
      mozjs_anon_sym_EQ_EQ_EQ, mozjs_anon_sym_BANG_EQ_EQ, mozjs_anon_sym_GT_EQ,
      mozjs_anon_sym_QMARK_QMARK, mozjs_anon_sym_instanceof, mozjs_anon_sym_BQUOTE]"

definition mozjs_small_run_37160 :: "nat list" where
  "mozjs_small_run_37160 =
    [19, 1578, 1, mozjs_anon_sym_LPAREN, 1580, 1, mozjs_anon_sym_LBRACK, 1582, 1,
      mozjs_anon_sym_DOT, 1594, 1, mozjs_sym_optional_chain, 2222, 1, mozjs_anon_sym_GT_GT, 2234,
      1, mozjs_anon_sym_PERCENT, 2236, 1, mozjs_anon_sym_STAR_STAR, 639, 1, mozjs_sym_arguments,
      5, 2, mozjs_sym_html_comment, mozjs_sym_comment, 1600, 2, mozjs_anon_sym_PLUS_PLUS,
      mozjs_anon_sym_DASH_DASH, 1797, 2, mozjs_anon_sym_AMP, mozjs_anon_sym_PIPE, 2214, 2,
      mozjs_anon_sym_STAR, mozjs_anon_sym_SLASH, 2224, 2, mozjs_anon_sym_GT_GT_GT,
      mozjs_anon_sym_LT_LT, 2232, 2, mozjs_anon_sym_PLUS, mozjs_anon_sym_DASH, 2240, 2,
      mozjs_anon_sym_EQ_EQ, mozjs_anon_sym_BANG_EQ, 2242, 2, mozjs_anon_sym_EQ_EQ_EQ,
      mozjs_anon_sym_BANG_EQ_EQ, 2216, 3, mozjs_anon_sym_in, mozjs_anon_sym_LT,
      mozjs_anon_sym_GT, 2238, 3, mozjs_anon_sym_LT_EQ, mozjs_anon_sym_GT_EQ,
      mozjs_anon_sym_instanceof, 1789, 7, mozjs_sym__ternary_qmark, mozjs_anon_sym_COLON,
      mozjs_anon_sym_AMP_AMP, mozjs_anon_sym_PIPE_PIPE, mozjs_anon_sym_CARET,
      mozjs_anon_sym_QMARK_QMARK, mozjs_anon_sym_BQUOTE]"

definition mozjs_small_run_37236 :: "nat list" where
  "mozjs_small_run_37236 =
    [20, 1578, 1, mozjs_anon_sym_LPAREN, 1580, 1, mozjs_anon_sym_LBRACK, 1582, 1,
      mozjs_anon_sym_DOT, 1594, 1, mozjs_sym_optional_chain, 1797, 1, mozjs_anon_sym_PIPE, 2222,
      1, mozjs_anon_sym_GT_GT, 2226, 1, mozjs_anon_sym_AMP, 2234, 1, mozjs_anon_sym_PERCENT,
      2236, 1, mozjs_anon_sym_STAR_STAR, 639, 1, mozjs_sym_arguments, 5, 2,
      mozjs_sym_html_comment, mozjs_sym_comment, 1600, 2, mozjs_anon_sym_PLUS_PLUS,
      mozjs_anon_sym_DASH_DASH, 2214, 2, mozjs_anon_sym_STAR, mozjs_anon_sym_SLASH, 2224, 2,
      mozjs_anon_sym_GT_GT_GT, mozjs_anon_sym_LT_LT, 2232, 2, mozjs_anon_sym_PLUS,
      mozjs_anon_sym_DASH, 2240, 2, mozjs_anon_sym_EQ_EQ, mozjs_anon_sym_BANG_EQ, 2242, 2,
      mozjs_anon_sym_EQ_EQ_EQ, mozjs_anon_sym_BANG_EQ_EQ, 2216, 3, mozjs_anon_sym_in,
      mozjs_anon_sym_LT, mozjs_anon_sym_GT, 2238, 3, mozjs_anon_sym_LT_EQ, mozjs_anon_sym_GT_EQ,
      mozjs_anon_sym_instanceof, 1789, 7, mozjs_sym__ternary_qmark, mozjs_anon_sym_COLON,
      mozjs_anon_sym_AMP_AMP, mozjs_anon_sym_PIPE_PIPE, mozjs_anon_sym_CARET,
      mozjs_anon_sym_QMARK_QMARK, mozjs_anon_sym_BQUOTE]"

definition mozjs_small_run_37314 :: "nat list" where
  "mozjs_small_run_37314 =
    [19, 1578, 1, mozjs_anon_sym_LPAREN, 1580, 1, mozjs_anon_sym_LBRACK, 1582, 1,
      mozjs_anon_sym_DOT, 1594, 1, mozjs_sym_optional_chain, 2176, 1, mozjs_anon_sym_GT_GT, 2184,
      1, mozjs_anon_sym_PERCENT, 2186, 1, mozjs_anon_sym_STAR_STAR, 639, 1, mozjs_sym_arguments,
      5, 2, mozjs_sym_html_comment, mozjs_sym_comment, 1600, 2, mozjs_anon_sym_PLUS_PLUS,
      mozjs_anon_sym_DASH_DASH, 1797, 2, mozjs_anon_sym_AMP, mozjs_anon_sym_PIPE, 2172, 2,
      mozjs_anon_sym_STAR, mozjs_anon_sym_SLASH, 2178, 2, mozjs_anon_sym_GT_GT_GT,
      mozjs_anon_sym_LT_LT, 2182, 2, mozjs_anon_sym_PLUS, mozjs_anon_sym_DASH, 2190, 2,
      mozjs_anon_sym_EQ_EQ, mozjs_anon_sym_BANG_EQ, 2192, 2, mozjs_anon_sym_EQ_EQ_EQ,
      mozjs_anon_sym_BANG_EQ_EQ, 2174, 3, mozjs_anon_sym_in, mozjs_anon_sym_LT,
      mozjs_anon_sym_GT, 2188, 3, mozjs_anon_sym_LT_EQ, mozjs_anon_sym_GT_EQ,
      mozjs_anon_sym_instanceof, 1789, 7, mozjs_sym__ternary_qmark, mozjs_anon_sym_LBRACE,
      mozjs_anon_sym_AMP_AMP, mozjs_anon_sym_PIPE_PIPE, mozjs_anon_sym_CARET,
      mozjs_anon_sym_QMARK_QMARK, mozjs_anon_sym_BQUOTE]"

definition mozjs_small_run_37390 :: "nat list" where
  "mozjs_small_run_37390 =
    [12, 1578, 1, mozjs_anon_sym_LPAREN, 1580, 1, mozjs_anon_sym_LBRACK, 1582, 1,
      mozjs_anon_sym_DOT, 1594, 1, mozjs_sym_optional_chain, 2234, 1, mozjs_anon_sym_PERCENT,
      2236, 1, mozjs_anon_sym_STAR_STAR, 639, 1, mozjs_sym_arguments, 5, 2,
      mozjs_sym_html_comment, mozjs_sym_comment, 1600, 2, mozjs_anon_sym_PLUS_PLUS,
      mozjs_anon_sym_DASH_DASH, 2214, 2, mozjs_anon_sym_STAR, mozjs_anon_sym_SLASH, 1797, 10,
      mozjs_anon_sym_in, mozjs_anon_sym_LT, mozjs_anon_sym_GT, mozjs_anon_sym_GT_GT,
      mozjs_anon_sym_AMP, mozjs_anon_sym_PIPE, mozjs_anon_sym_PLUS, mozjs_anon_sym_DASH,
      mozjs_anon_sym_EQ_EQ, mozjs_anon_sym_BANG_EQ, 1789, 14, mozjs_sym__ternary_qmark,
      mozjs_anon_sym_COLON, mozjs_anon_sym_AMP_AMP, mozjs_anon_sym_PIPE_PIPE,
      mozjs_anon_sym_GT_GT_GT, mozjs_anon_sym_LT_LT, mozjs_anon_sym_CARET, mozjs_anon_sym_LT_EQ,
      mozjs_anon_sym_EQ_EQ_EQ, mozjs_anon_sym_BANG_EQ_EQ, mozjs_anon_sym_GT_EQ,
      mozjs_anon_sym_QMARK_QMARK, mozjs_anon_sym_instanceof, mozjs_anon_sym_BQUOTE]"

definition mozjs_small_run_37452 :: "nat list" where
  "mozjs_small_run_37452 =
    [10, 1578, 1, mozjs_anon_sym_LPAREN, 1580, 1, mozjs_anon_sym_LBRACK, 1582, 1,
      mozjs_anon_sym_DOT, 1594, 1, mozjs_sym_optional_chain, 2236, 1, mozjs_anon_sym_STAR_STAR,
      639, 1, mozjs_sym_arguments, 5, 2, mozjs_sym_html_comment, mozjs_sym_comment, 1600, 2,
      mozjs_anon_sym_PLUS_PLUS, mozjs_anon_sym_DASH_DASH, 1797, 12, mozjs_anon_sym_STAR,
      mozjs_anon_sym_in, mozjs_anon_sym_LT, mozjs_anon_sym_GT, mozjs_anon_sym_GT_GT,
      mozjs_anon_sym_AMP, mozjs_anon_sym_PIPE, mozjs_anon_sym_PLUS, mozjs_anon_sym_DASH,
      mozjs_anon_sym_SLASH, mozjs_anon_sym_EQ_EQ, mozjs_anon_sym_BANG_EQ, 1789, 15,
      mozjs_sym__ternary_qmark, mozjs_anon_sym_COLON, mozjs_anon_sym_AMP_AMP,
      mozjs_anon_sym_PIPE_PIPE, mozjs_anon_sym_GT_GT_GT, mozjs_anon_sym_LT_LT,
      mozjs_anon_sym_CARET, mozjs_anon_sym_PERCENT, mozjs_anon_sym_LT_EQ,
      mozjs_anon_sym_EQ_EQ_EQ, mozjs_anon_sym_BANG_EQ_EQ, mozjs_anon_sym_GT_EQ,
      mozjs_anon_sym_QMARK_QMARK, mozjs_anon_sym_instanceof, mozjs_anon_sym_BQUOTE]"

definition mozjs_small_run_37510 :: "nat list" where
  "mozjs_small_run_37510 =
    [17, 1578, 1, mozjs_anon_sym_LPAREN, 1580, 1, mozjs_anon_sym_LBRACK, 1582, 1,
      mozjs_anon_sym_DOT, 1594, 1, mozjs_sym_optional_chain, 2222, 1, mozjs_anon_sym_GT_GT, 2234,
      1, mozjs_anon_sym_PERCENT, 2236, 1, mozjs_anon_sym_STAR_STAR, 639, 1, mozjs_sym_arguments,
      5, 2, mozjs_sym_html_comment, mozjs_sym_comment, 1600, 2, mozjs_anon_sym_PLUS_PLUS,
      mozjs_anon_sym_DASH_DASH, 2214, 2, mozjs_anon_sym_STAR, mozjs_anon_sym_SLASH, 2224, 2,
      mozjs_anon_sym_GT_GT_GT, mozjs_anon_sym_LT_LT, 2232, 2, mozjs_anon_sym_PLUS,
      mozjs_anon_sym_DASH, 2216, 3, mozjs_anon_sym_in, mozjs_anon_sym_LT, mozjs_anon_sym_GT,
      2238, 3, mozjs_anon_sym_LT_EQ, mozjs_anon_sym_GT_EQ, mozjs_anon_sym_instanceof, 1797, 4,
      mozjs_anon_sym_AMP, mozjs_anon_sym_PIPE, mozjs_anon_sym_EQ_EQ, mozjs_anon_sym_BANG_EQ,
      1789, 9, mozjs_sym__ternary_qmark, mozjs_anon_sym_COLON, mozjs_anon_sym_AMP_AMP,
      mozjs_anon_sym_PIPE_PIPE, mozjs_anon_sym_CARET, mozjs_anon_sym_EQ_EQ_EQ,
      mozjs_anon_sym_BANG_EQ_EQ, mozjs_anon_sym_QMARK_QMARK, mozjs_anon_sym_BQUOTE]"

definition mozjs_small_run_37582 :: "nat list" where
  "mozjs_small_run_37582 =
    [23, 1578, 1, mozjs_anon_sym_LPAREN, 1580, 1, mozjs_anon_sym_LBRACK, 1582, 1,
      mozjs_anon_sym_DOT, 1594, 1, mozjs_sym_optional_chain, 2218, 1, mozjs_anon_sym_AMP_AMP,
      2220, 1, mozjs_anon_sym_PIPE_PIPE, 2222, 1, mozjs_anon_sym_GT_GT, 2226, 1,
      mozjs_anon_sym_AMP, 2228, 1, mozjs_anon_sym_CARET, 2230, 1, mozjs_anon_sym_PIPE, 2234, 1,
      mozjs_anon_sym_PERCENT, 2236, 1, mozjs_anon_sym_STAR_STAR, 639, 1, mozjs_sym_arguments, 5,
      2, mozjs_sym_html_comment, mozjs_sym_comment, 1600, 2, mozjs_anon_sym_PLUS_PLUS,
      mozjs_anon_sym_DASH_DASH, 2214, 2, mozjs_anon_sym_STAR, mozjs_anon_sym_SLASH, 2224, 2,
      mozjs_anon_sym_GT_GT_GT, mozjs_anon_sym_LT_LT, 2232, 2, mozjs_anon_sym_PLUS,
      mozjs_anon_sym_DASH, 2240, 2, mozjs_anon_sym_EQ_EQ, mozjs_anon_sym_BANG_EQ, 2242, 2,
      mozjs_anon_sym_EQ_EQ_EQ, mozjs_anon_sym_BANG_EQ_EQ, 2216, 3, mozjs_anon_sym_in,
      mozjs_anon_sym_LT, mozjs_anon_sym_GT, 2238, 3, mozjs_anon_sym_LT_EQ, mozjs_anon_sym_GT_EQ,
      mozjs_anon_sym_instanceof, 1789, 4, mozjs_sym__ternary_qmark, mozjs_anon_sym_COLON,
      mozjs_anon_sym_QMARK_QMARK, mozjs_anon_sym_BQUOTE]"

definition mozjs_small_run_37666 :: "nat list" where
  "mozjs_small_run_37666 =
    [25, 1578, 1, mozjs_anon_sym_LPAREN, 1580, 1, mozjs_anon_sym_LBRACK, 1582, 1,
      mozjs_anon_sym_DOT, 1594, 1, mozjs_sym_optional_chain, 2218, 1, mozjs_anon_sym_AMP_AMP,
      2220, 1, mozjs_anon_sym_PIPE_PIPE, 2222, 1, mozjs_anon_sym_GT_GT, 2226, 1,
      mozjs_anon_sym_AMP, 2228, 1, mozjs_anon_sym_CARET, 2230, 1, mozjs_anon_sym_PIPE, 2234, 1,
      mozjs_anon_sym_PERCENT, 2236, 1, mozjs_anon_sym_STAR_STAR, 2244, 1,
      mozjs_anon_sym_QMARK_QMARK, 2246, 1, mozjs_sym__ternary_qmark, 639, 1, mozjs_sym_arguments,
      5, 2, mozjs_sym_html_comment, mozjs_sym_comment, 1600, 2, mozjs_anon_sym_PLUS_PLUS,
      mozjs_anon_sym_DASH_DASH, 1839, 2, mozjs_anon_sym_COLON, mozjs_anon_sym_BQUOTE, 2214, 2,
      mozjs_anon_sym_STAR, mozjs_anon_sym_SLASH, 2224, 2, mozjs_anon_sym_GT_GT_GT,
      mozjs_anon_sym_LT_LT, 2232, 2, mozjs_anon_sym_PLUS, mozjs_anon_sym_DASH, 2240, 2,
      mozjs_anon_sym_EQ_EQ, mozjs_anon_sym_BANG_EQ, 2242, 2, mozjs_anon_sym_EQ_EQ_EQ,
      mozjs_anon_sym_BANG_EQ_EQ, 2216, 3, mozjs_anon_sym_in, mozjs_anon_sym_LT,
      mozjs_anon_sym_GT, 2238, 3, mozjs_anon_sym_LT_EQ, mozjs_anon_sym_GT_EQ,
      mozjs_anon_sym_instanceof]"

definition mozjs_small_run_37754 :: "nat list" where
  "mozjs_small_run_37754 =
    [25, 1578, 1, mozjs_anon_sym_LPAREN, 1580, 1, mozjs_anon_sym_LBRACK, 1582, 1,
      mozjs_anon_sym_DOT, 1594, 1, mozjs_sym_optional_chain, 2218, 1, mozjs_anon_sym_AMP_AMP,
      2220, 1, mozjs_anon_sym_PIPE_PIPE, 2222, 1, mozjs_anon_sym_GT_GT, 2226, 1,
      mozjs_anon_sym_AMP, 2228, 1, mozjs_anon_sym_CARET, 2230, 1, mozjs_anon_sym_PIPE, 2234, 1,
      mozjs_anon_sym_PERCENT, 2236, 1, mozjs_anon_sym_STAR_STAR, 2244, 1,
      mozjs_anon_sym_QMARK_QMARK, 2246, 1, mozjs_sym__ternary_qmark, 639, 1, mozjs_sym_arguments,
      5, 2, mozjs_sym_html_comment, mozjs_sym_comment, 1600, 2, mozjs_anon_sym_PLUS_PLUS,
      mozjs_anon_sym_DASH_DASH, 1752, 2, mozjs_anon_sym_COLON, mozjs_anon_sym_BQUOTE, 2214, 2,
      mozjs_anon_sym_STAR, mozjs_anon_sym_SLASH, 2224, 2, mozjs_anon_sym_GT_GT_GT,
      mozjs_anon_sym_LT_LT, 2232, 2, mozjs_anon_sym_PLUS, mozjs_anon_sym_DASH, 2240, 2,
      mozjs_anon_sym_EQ_EQ, mozjs_anon_sym_BANG_EQ, 2242, 2, mozjs_anon_sym_EQ_EQ_EQ,
      mozjs_anon_sym_BANG_EQ_EQ, 2216, 3, mozjs_anon_sym_in, mozjs_anon_sym_LT,
      mozjs_anon_sym_GT, 2238, 3, mozjs_anon_sym_LT_EQ, mozjs_anon_sym_GT_EQ,
      mozjs_anon_sym_instanceof]"

definition mozjs_small_run_37842 :: "nat list" where
  "mozjs_small_run_37842 =
    [25, 1578, 1, mozjs_anon_sym_LPAREN, 1580, 1, mozjs_anon_sym_LBRACK, 1582, 1,
      mozjs_anon_sym_DOT, 1594, 1, mozjs_sym_optional_chain, 2218, 1, mozjs_anon_sym_AMP_AMP,
      2220, 1, mozjs_anon_sym_PIPE_PIPE, 2222, 1, mozjs_anon_sym_GT_GT, 2226, 1,
      mozjs_anon_sym_AMP, 2228, 1, mozjs_anon_sym_CARET, 2230, 1, mozjs_anon_sym_PIPE, 2234, 1,
      mozjs_anon_sym_PERCENT, 2236, 1, mozjs_anon_sym_STAR_STAR, 2244, 1,
      mozjs_anon_sym_QMARK_QMARK, 2246, 1, mozjs_sym__ternary_qmark, 639, 1, mozjs_sym_arguments,
      5, 2, mozjs_sym_html_comment, mozjs_sym_comment, 1600, 2, mozjs_anon_sym_PLUS_PLUS,
      mozjs_anon_sym_DASH_DASH, 1720, 2, mozjs_anon_sym_COLON, mozjs_anon_sym_BQUOTE, 2214, 2,
      mozjs_anon_sym_STAR, mozjs_anon_sym_SLASH, 2224, 2, mozjs_anon_sym_GT_GT_GT,
      mozjs_anon_sym_LT_LT, 2232, 2, mozjs_anon_sym_PLUS, mozjs_anon_sym_DASH, 2240, 2,
      mozjs_anon_sym_EQ_EQ, mozjs_anon_sym_BANG_EQ, 2242, 2, mozjs_anon_sym_EQ_EQ_EQ,
      mozjs_anon_sym_BANG_EQ_EQ, 2216, 3, mozjs_anon_sym_in, mozjs_anon_sym_LT,
      mozjs_anon_sym_GT, 2238, 3, mozjs_anon_sym_LT_EQ, mozjs_anon_sym_GT_EQ,
      mozjs_anon_sym_instanceof]"

definition mozjs_small_run_37930 :: "nat list" where
  "mozjs_small_run_37930 =
    [25, 1578, 1, mozjs_anon_sym_LPAREN, 1580, 1, mozjs_anon_sym_LBRACK, 1582, 1,
      mozjs_anon_sym_DOT, 1594, 1, mozjs_sym_optional_chain, 2218, 1, mozjs_anon_sym_AMP_AMP,
      2220, 1, mozjs_anon_sym_PIPE_PIPE, 2222, 1, mozjs_anon_sym_GT_GT, 2226, 1,
      mozjs_anon_sym_AMP, 2228, 1, mozjs_anon_sym_CARET, 2230, 1, mozjs_anon_sym_PIPE, 2234, 1,
      mozjs_anon_sym_PERCENT, 2236, 1, mozjs_anon_sym_STAR_STAR, 2244, 1,
      mozjs_anon_sym_QMARK_QMARK, 2246, 1, mozjs_sym__ternary_qmark, 639, 1, mozjs_sym_arguments,
      5, 2, mozjs_sym_html_comment, mozjs_sym_comment, 1600, 2, mozjs_anon_sym_PLUS_PLUS,
      mozjs_anon_sym_DASH_DASH, 1736, 2, mozjs_anon_sym_COLON, mozjs_anon_sym_BQUOTE, 2214, 2,
      mozjs_anon_sym_STAR, mozjs_anon_sym_SLASH, 2224, 2, mozjs_anon_sym_GT_GT_GT,
      mozjs_anon_sym_LT_LT, 2232, 2, mozjs_anon_sym_PLUS, mozjs_anon_sym_DASH, 2240, 2,
      mozjs_anon_sym_EQ_EQ, mozjs_anon_sym_BANG_EQ, 2242, 2, mozjs_anon_sym_EQ_EQ_EQ,
      mozjs_anon_sym_BANG_EQ_EQ, 2216, 3, mozjs_anon_sym_in, mozjs_anon_sym_LT,
      mozjs_anon_sym_GT, 2238, 3, mozjs_anon_sym_LT_EQ, mozjs_anon_sym_GT_EQ,
      mozjs_anon_sym_instanceof]"

definition mozjs_small_run_38018 :: "nat list" where
  "mozjs_small_run_38018 =
    [25, 1578, 1, mozjs_anon_sym_LPAREN, 1580, 1, mozjs_anon_sym_LBRACK, 1582, 1,
      mozjs_anon_sym_DOT, 1594, 1, mozjs_sym_optional_chain, 2218, 1, mozjs_anon_sym_AMP_AMP,
      2220, 1, mozjs_anon_sym_PIPE_PIPE, 2222, 1, mozjs_anon_sym_GT_GT, 2226, 1,
      mozjs_anon_sym_AMP, 2228, 1, mozjs_anon_sym_CARET, 2230, 1, mozjs_anon_sym_PIPE, 2234, 1,
      mozjs_anon_sym_PERCENT, 2236, 1, mozjs_anon_sym_STAR_STAR, 2244, 1,
      mozjs_anon_sym_QMARK_QMARK, 2246, 1, mozjs_sym__ternary_qmark, 639, 1, mozjs_sym_arguments,
      5, 2, mozjs_sym_html_comment, mozjs_sym_comment, 1600, 2, mozjs_anon_sym_PLUS_PLUS,
      mozjs_anon_sym_DASH_DASH, 1768, 2, mozjs_anon_sym_COLON, mozjs_anon_sym_BQUOTE, 2214, 2,
      mozjs_anon_sym_STAR, mozjs_anon_sym_SLASH, 2224, 2, mozjs_anon_sym_GT_GT_GT,
      mozjs_anon_sym_LT_LT, 2232, 2, mozjs_anon_sym_PLUS, mozjs_anon_sym_DASH, 2240, 2,
      mozjs_anon_sym_EQ_EQ, mozjs_anon_sym_BANG_EQ, 2242, 2, mozjs_anon_sym_EQ_EQ_EQ,
      mozjs_anon_sym_BANG_EQ_EQ, 2216, 3, mozjs_anon_sym_in, mozjs_anon_sym_LT,
      mozjs_anon_sym_GT, 2238, 3, mozjs_anon_sym_LT_EQ, mozjs_anon_sym_GT_EQ,
      mozjs_anon_sym_instanceof]"

definition mozjs_small_run_38106 :: "nat list" where
  "mozjs_small_run_38106 =
    [25, 1578, 1, mozjs_anon_sym_LPAREN, 1580, 1, mozjs_anon_sym_LBRACK, 1582, 1,
      mozjs_anon_sym_DOT, 1594, 1, mozjs_sym_optional_chain, 2176, 1, mozjs_anon_sym_GT_GT, 2180,
      1, mozjs_anon_sym_AMP, 2184, 1, mozjs_anon_sym_PERCENT, 2186, 1, mozjs_anon_sym_STAR_STAR,
      2194, 1, mozjs_anon_sym_CARET, 2196, 1, mozjs_anon_sym_AMP_AMP, 2198, 1,
      mozjs_anon_sym_PIPE_PIPE, 2200, 1, mozjs_anon_sym_PIPE, 2202, 1,
      mozjs_anon_sym_QMARK_QMARK, 2204, 1, mozjs_sym__ternary_qmark, 639, 1, mozjs_sym_arguments,
      5, 2, mozjs_sym_html_comment, mozjs_sym_comment, 1600, 2, mozjs_anon_sym_PLUS_PLUS,
      mozjs_anon_sym_DASH_DASH, 1708, 2, mozjs_anon_sym_LBRACE, mozjs_anon_sym_BQUOTE, 2172, 2,
      mozjs_anon_sym_STAR, mozjs_anon_sym_SLASH, 2178, 2, mozjs_anon_sym_GT_GT_GT,
      mozjs_anon_sym_LT_LT, 2182, 2, mozjs_anon_sym_PLUS, mozjs_anon_sym_DASH, 2190, 2,
      mozjs_anon_sym_EQ_EQ, mozjs_anon_sym_BANG_EQ, 2192, 2, mozjs_anon_sym_EQ_EQ_EQ,
      mozjs_anon_sym_BANG_EQ_EQ, 2174, 3, mozjs_anon_sym_in, mozjs_anon_sym_LT,
      mozjs_anon_sym_GT, 2188, 3, mozjs_anon_sym_LT_EQ, mozjs_anon_sym_GT_EQ,
      mozjs_anon_sym_instanceof]"

definition mozjs_small_run_38194 :: "nat list" where
  "mozjs_small_run_38194 =
    [25, 1578, 1, mozjs_anon_sym_LPAREN, 1580, 1, mozjs_anon_sym_LBRACK, 1582, 1,
      mozjs_anon_sym_DOT, 1594, 1, mozjs_sym_optional_chain, 2218, 1, mozjs_anon_sym_AMP_AMP,
      2220, 1, mozjs_anon_sym_PIPE_PIPE, 2222, 1, mozjs_anon_sym_GT_GT, 2226, 1,
      mozjs_anon_sym_AMP, 2228, 1, mozjs_anon_sym_CARET, 2230, 1, mozjs_anon_sym_PIPE, 2234, 1,
      mozjs_anon_sym_PERCENT, 2236, 1, mozjs_anon_sym_STAR_STAR, 2244, 1,
      mozjs_anon_sym_QMARK_QMARK, 2246, 1, mozjs_sym__ternary_qmark, 639, 1, mozjs_sym_arguments,
      5, 2, mozjs_sym_html_comment, mozjs_sym_comment, 1600, 2, mozjs_anon_sym_PLUS_PLUS,
      mozjs_anon_sym_DASH_DASH, 1843, 2, mozjs_anon_sym_COLON, mozjs_anon_sym_BQUOTE, 2214, 2,
      mozjs_anon_sym_STAR, mozjs_anon_sym_SLASH, 2224, 2, mozjs_anon_sym_GT_GT_GT,
      mozjs_anon_sym_LT_LT, 2232, 2, mozjs_anon_sym_PLUS, mozjs_anon_sym_DASH, 2240, 2,
      mozjs_anon_sym_EQ_EQ, mozjs_anon_sym_BANG_EQ, 2242, 2, mozjs_anon_sym_EQ_EQ_EQ,
      mozjs_anon_sym_BANG_EQ_EQ, 2216, 3, mozjs_anon_sym_in, mozjs_anon_sym_LT,
      mozjs_anon_sym_GT, 2238, 3, mozjs_anon_sym_LT_EQ, mozjs_anon_sym_GT_EQ,
      mozjs_anon_sym_instanceof]"

definition mozjs_small_run_38282 :: "nat list" where
  "mozjs_small_run_38282 =
    [15, 1578, 1, mozjs_anon_sym_LPAREN, 1580, 1, mozjs_anon_sym_LBRACK, 1582, 1,
      mozjs_anon_sym_DOT, 1594, 1, mozjs_sym_optional_chain, 2176, 1, mozjs_anon_sym_GT_GT, 2184,
      1, mozjs_anon_sym_PERCENT, 2186, 1, mozjs_anon_sym_STAR_STAR, 639, 1, mozjs_sym_arguments,
      5, 2, mozjs_sym_html_comment, mozjs_sym_comment, 1600, 2, mozjs_anon_sym_PLUS_PLUS,
      mozjs_anon_sym_DASH_DASH, 2172, 2, mozjs_anon_sym_STAR, mozjs_anon_sym_SLASH, 2178, 2,
      mozjs_anon_sym_GT_GT_GT, mozjs_anon_sym_LT_LT, 2182, 2, mozjs_anon_sym_PLUS,
      mozjs_anon_sym_DASH, 1797, 7, mozjs_anon_sym_in, mozjs_anon_sym_LT, mozjs_anon_sym_GT,
      mozjs_anon_sym_AMP, mozjs_anon_sym_PIPE, mozjs_anon_sym_EQ_EQ, mozjs_anon_sym_BANG_EQ,
      1789, 12, mozjs_sym__ternary_qmark, mozjs_anon_sym_LBRACE, mozjs_anon_sym_AMP_AMP,
      mozjs_anon_sym_PIPE_PIPE, mozjs_anon_sym_CARET, mozjs_anon_sym_LT_EQ,
      mozjs_anon_sym_EQ_EQ_EQ, mozjs_anon_sym_BANG_EQ_EQ, mozjs_anon_sym_GT_EQ,
      mozjs_anon_sym_QMARK_QMARK, mozjs_anon_sym_instanceof, mozjs_anon_sym_BQUOTE]"

definition mozjs_small_run_38350 :: "nat list" where
  "mozjs_small_run_38350 =
    [25, 1578, 1, mozjs_anon_sym_LPAREN, 1580, 1, mozjs_anon_sym_LBRACK, 1582, 1,
      mozjs_anon_sym_DOT, 1594, 1, mozjs_sym_optional_chain, 2142, 1, mozjs_anon_sym_AMP_AMP,
      2144, 1, mozjs_anon_sym_PIPE_PIPE, 2146, 1, mozjs_anon_sym_GT_GT, 2150, 1,
      mozjs_anon_sym_AMP, 2152, 1, mozjs_anon_sym_CARET, 2154, 1, mozjs_anon_sym_PIPE, 2158, 1,
      mozjs_anon_sym_PERCENT, 2160, 1, mozjs_anon_sym_STAR_STAR, 2168, 1,
      mozjs_anon_sym_QMARK_QMARK, 2170, 1, mozjs_sym__ternary_qmark, 639, 1, mozjs_sym_arguments,
      5, 2, mozjs_sym_html_comment, mozjs_sym_comment, 1600, 2, mozjs_anon_sym_PLUS_PLUS,
      mozjs_anon_sym_DASH_DASH, 1841, 2, mozjs_anon_sym_of, mozjs_anon_sym_BQUOTE, 2138, 2,
      mozjs_anon_sym_STAR, mozjs_anon_sym_SLASH, 2148, 2, mozjs_anon_sym_GT_GT_GT,
      mozjs_anon_sym_LT_LT, 2156, 2, mozjs_anon_sym_PLUS, mozjs_anon_sym_DASH, 2164, 2,
      mozjs_anon_sym_EQ_EQ, mozjs_anon_sym_BANG_EQ, 2166, 2, mozjs_anon_sym_EQ_EQ_EQ,
      mozjs_anon_sym_BANG_EQ_EQ, 2140, 3, mozjs_anon_sym_in, mozjs_anon_sym_LT,
      mozjs_anon_sym_GT, 2162, 3, mozjs_anon_sym_LT_EQ, mozjs_anon_sym_GT_EQ,
      mozjs_anon_sym_instanceof]"

definition mozjs_small_run_38438 :: "nat list" where
  "mozjs_small_run_38438 =
    [25, 1578, 1, mozjs_anon_sym_LPAREN, 1580, 1, mozjs_anon_sym_LBRACK, 1582, 1,
      mozjs_anon_sym_DOT, 1594, 1, mozjs_sym_optional_chain, 2142, 1, mozjs_anon_sym_AMP_AMP,
      2144, 1, mozjs_anon_sym_PIPE_PIPE, 2146, 1, mozjs_anon_sym_GT_GT, 2150, 1,
      mozjs_anon_sym_AMP, 2152, 1, mozjs_anon_sym_CARET, 2154, 1, mozjs_anon_sym_PIPE, 2158, 1,
      mozjs_anon_sym_PERCENT, 2160, 1, mozjs_anon_sym_STAR_STAR, 2168, 1,
      mozjs_anon_sym_QMARK_QMARK, 2170, 1, mozjs_sym__ternary_qmark, 639, 1, mozjs_sym_arguments,
      5, 2, mozjs_sym_html_comment, mozjs_sym_comment, 1600, 2, mozjs_anon_sym_PLUS_PLUS,
      mozjs_anon_sym_DASH_DASH, 1630, 2, mozjs_anon_sym_of, mozjs_anon_sym_BQUOTE, 2138, 2,
      mozjs_anon_sym_STAR, mozjs_anon_sym_SLASH, 2148, 2, mozjs_anon_sym_GT_GT_GT,
      mozjs_anon_sym_LT_LT, 2156, 2, mozjs_anon_sym_PLUS, mozjs_anon_sym_DASH, 2164, 2,
      mozjs_anon_sym_EQ_EQ, mozjs_anon_sym_BANG_EQ, 2166, 2, mozjs_anon_sym_EQ_EQ_EQ,
      mozjs_anon_sym_BANG_EQ_EQ, 2140, 3, mozjs_anon_sym_in, mozjs_anon_sym_LT,
      mozjs_anon_sym_GT, 2162, 3, mozjs_anon_sym_LT_EQ, mozjs_anon_sym_GT_EQ,
      mozjs_anon_sym_instanceof]"

definition mozjs_small_run_38526 :: "nat list" where
  "mozjs_small_run_38526 =
    [25, 1578, 1, mozjs_anon_sym_LPAREN, 1580, 1, mozjs_anon_sym_LBRACK, 1582, 1,
      mozjs_anon_sym_DOT, 1594, 1, mozjs_sym_optional_chain, 2142, 1, mozjs_anon_sym_AMP_AMP,
      2144, 1, mozjs_anon_sym_PIPE_PIPE, 2146, 1, mozjs_anon_sym_GT_GT, 2150, 1,
      mozjs_anon_sym_AMP, 2152, 1, mozjs_anon_sym_CARET, 2154, 1, mozjs_anon_sym_PIPE, 2158, 1,
      mozjs_anon_sym_PERCENT, 2160, 1, mozjs_anon_sym_STAR_STAR, 2168, 1,
      mozjs_anon_sym_QMARK_QMARK, 2170, 1, mozjs_sym__ternary_qmark, 639, 1, mozjs_sym_arguments,
      5, 2, mozjs_sym_html_comment, mozjs_sym_comment, 1600, 2, mozjs_anon_sym_PLUS_PLUS,
      mozjs_anon_sym_DASH_DASH, 1835, 2, mozjs_anon_sym_of, mozjs_anon_sym_BQUOTE, 2138, 2,
      mozjs_anon_sym_STAR, mozjs_anon_sym_SLASH, 2148, 2, mozjs_anon_sym_GT_GT_GT,
      mozjs_anon_sym_LT_LT, 2156, 2, mozjs_anon_sym_PLUS, mozjs_anon_sym_DASH, 2164, 2,
      mozjs_anon_sym_EQ_EQ, mozjs_anon_sym_BANG_EQ, 2166, 2, mozjs_anon_sym_EQ_EQ_EQ,
      mozjs_anon_sym_BANG_EQ_EQ, 2140, 3, mozjs_anon_sym_in, mozjs_anon_sym_LT,
      mozjs_anon_sym_GT, 2162, 3, mozjs_anon_sym_LT_EQ, mozjs_anon_sym_GT_EQ,
      mozjs_anon_sym_instanceof]"

definition mozjs_small_run_38614 :: "nat list" where
  "mozjs_small_run_38614 =
    [25, 1578, 1, mozjs_anon_sym_LPAREN, 1580, 1, mozjs_anon_sym_LBRACK, 1582, 1,
      mozjs_anon_sym_DOT, 1594, 1, mozjs_sym_optional_chain, 2142, 1, mozjs_anon_sym_AMP_AMP,
      2144, 1, mozjs_anon_sym_PIPE_PIPE, 2146, 1, mozjs_anon_sym_GT_GT, 2150, 1,
      mozjs_anon_sym_AMP, 2152, 1, mozjs_anon_sym_CARET, 2154, 1, mozjs_anon_sym_PIPE, 2158, 1,
      mozjs_anon_sym_PERCENT, 2160, 1, mozjs_anon_sym_STAR_STAR, 2168, 1,
      mozjs_anon_sym_QMARK_QMARK, 2170, 1, mozjs_sym__ternary_qmark, 639, 1, mozjs_sym_arguments,
      5, 2, mozjs_sym_html_comment, mozjs_sym_comment, 1600, 2, mozjs_anon_sym_PLUS_PLUS,
      mozjs_anon_sym_DASH_DASH, 1837, 2, mozjs_anon_sym_of, mozjs_anon_sym_BQUOTE, 2138, 2,
      mozjs_anon_sym_STAR, mozjs_anon_sym_SLASH, 2148, 2, mozjs_anon_sym_GT_GT_GT,
      mozjs_anon_sym_LT_LT, 2156, 2, mozjs_anon_sym_PLUS, mozjs_anon_sym_DASH, 2164, 2,
      mozjs_anon_sym_EQ_EQ, mozjs_anon_sym_BANG_EQ, 2166, 2, mozjs_anon_sym_EQ_EQ_EQ,
      mozjs_anon_sym_BANG_EQ_EQ, 2140, 3, mozjs_anon_sym_in, mozjs_anon_sym_LT,
      mozjs_anon_sym_GT, 2162, 3, mozjs_anon_sym_LT_EQ, mozjs_anon_sym_GT_EQ,
      mozjs_anon_sym_instanceof]"

definition mozjs_small_run_38702 :: "nat list" where
  "mozjs_small_run_38702 =
    [25, 1578, 1, mozjs_anon_sym_LPAREN, 1580, 1, mozjs_anon_sym_LBRACK, 1582, 1,
      mozjs_anon_sym_DOT, 1594, 1, mozjs_sym_optional_chain, 2142, 1, mozjs_anon_sym_AMP_AMP,
      2144, 1, mozjs_anon_sym_PIPE_PIPE, 2146, 1, mozjs_anon_sym_GT_GT, 2150, 1,
      mozjs_anon_sym_AMP, 2152, 1, mozjs_anon_sym_CARET, 2154, 1, mozjs_anon_sym_PIPE, 2158, 1,
      mozjs_anon_sym_PERCENT, 2160, 1, mozjs_anon_sym_STAR_STAR, 2168, 1,
      mozjs_anon_sym_QMARK_QMARK, 2170, 1, mozjs_sym__ternary_qmark, 639, 1, mozjs_sym_arguments,
      5, 2, mozjs_sym_html_comment, mozjs_sym_comment, 1600, 2, mozjs_anon_sym_PLUS_PLUS,
      mozjs_anon_sym_DASH_DASH, 1708, 2, mozjs_anon_sym_of, mozjs_anon_sym_BQUOTE, 2138, 2,
      mozjs_anon_sym_STAR, mozjs_anon_sym_SLASH, 2148, 2, mozjs_anon_sym_GT_GT_GT,
      mozjs_anon_sym_LT_LT, 2156, 2, mozjs_anon_sym_PLUS, mozjs_anon_sym_DASH, 2164, 2,
      mozjs_anon_sym_EQ_EQ, mozjs_anon_sym_BANG_EQ, 2166, 2, mozjs_anon_sym_EQ_EQ_EQ,
      mozjs_anon_sym_BANG_EQ_EQ, 2140, 3, mozjs_anon_sym_in, mozjs_anon_sym_LT,
      mozjs_anon_sym_GT, 2162, 3, mozjs_anon_sym_LT_EQ, mozjs_anon_sym_GT_EQ,
      mozjs_anon_sym_instanceof]"

definition mozjs_small_run_38790 :: "nat list" where
  "mozjs_small_run_38790 =
    [15, 1578, 1, mozjs_anon_sym_LPAREN, 1580, 1, mozjs_anon_sym_LBRACK, 1582, 1,
      mozjs_anon_sym_DOT, 1594, 1, mozjs_sym_optional_chain, 2146, 1, mozjs_anon_sym_GT_GT, 2158,
      1, mozjs_anon_sym_PERCENT, 2160, 1, mozjs_anon_sym_STAR_STAR, 639, 1, mozjs_sym_arguments,
      5, 2, mozjs_sym_html_comment, mozjs_sym_comment, 1600, 2, mozjs_anon_sym_PLUS_PLUS,
      mozjs_anon_sym_DASH_DASH, 2138, 2, mozjs_anon_sym_STAR, mozjs_anon_sym_SLASH, 2148, 2,
      mozjs_anon_sym_GT_GT_GT, mozjs_anon_sym_LT_LT, 2156, 2, mozjs_anon_sym_PLUS,
      mozjs_anon_sym_DASH, 1797, 7, mozjs_anon_sym_in, mozjs_anon_sym_LT, mozjs_anon_sym_GT,
      mozjs_anon_sym_AMP, mozjs_anon_sym_PIPE, mozjs_anon_sym_EQ_EQ, mozjs_anon_sym_BANG_EQ,
      1789, 12, mozjs_sym__ternary_qmark, mozjs_anon_sym_of, mozjs_anon_sym_AMP_AMP,
      mozjs_anon_sym_PIPE_PIPE, mozjs_anon_sym_CARET, mozjs_anon_sym_LT_EQ,
      mozjs_anon_sym_EQ_EQ_EQ, mozjs_anon_sym_BANG_EQ_EQ, mozjs_anon_sym_GT_EQ,
      mozjs_anon_sym_QMARK_QMARK, mozjs_anon_sym_instanceof, mozjs_anon_sym_BQUOTE]"

definition mozjs_small_run_38858 :: "nat list" where
  "mozjs_small_run_38858 =
    [10, 1578, 1, mozjs_anon_sym_LPAREN, 1580, 1, mozjs_anon_sym_LBRACK, 1582, 1,
      mozjs_anon_sym_DOT, 1594, 1, mozjs_sym_optional_chain, 2160, 1, mozjs_anon_sym_STAR_STAR,
      639, 1, mozjs_sym_arguments, 5, 2, mozjs_sym_html_comment, mozjs_sym_comment, 1600, 2,
      mozjs_anon_sym_PLUS_PLUS, mozjs_anon_sym_DASH_DASH, 1797, 12, mozjs_anon_sym_STAR,
      mozjs_anon_sym_in, mozjs_anon_sym_LT, mozjs_anon_sym_GT, mozjs_anon_sym_GT_GT,
      mozjs_anon_sym_AMP, mozjs_anon_sym_PIPE, mozjs_anon_sym_PLUS, mozjs_anon_sym_DASH,
      mozjs_anon_sym_SLASH, mozjs_anon_sym_EQ_EQ, mozjs_anon_sym_BANG_EQ, 1789, 15,
      mozjs_sym__ternary_qmark, mozjs_anon_sym_of, mozjs_anon_sym_AMP_AMP,
      mozjs_anon_sym_PIPE_PIPE, mozjs_anon_sym_GT_GT_GT, mozjs_anon_sym_LT_LT,
      mozjs_anon_sym_CARET, mozjs_anon_sym_PERCENT, mozjs_anon_sym_LT_EQ,
      mozjs_anon_sym_EQ_EQ_EQ, mozjs_anon_sym_BANG_EQ_EQ, mozjs_anon_sym_GT_EQ,
      mozjs_anon_sym_QMARK_QMARK, mozjs_anon_sym_instanceof, mozjs_anon_sym_BQUOTE]"

definition mozjs_small_run_38916 :: "nat list" where
  "mozjs_small_run_38916 =
    [21, 1578, 1, mozjs_anon_sym_LPAREN, 1580, 1, mozjs_anon_sym_LBRACK, 1582, 1,
      mozjs_anon_sym_DOT, 1594, 1, mozjs_sym_optional_chain, 2146, 1, mozjs_anon_sym_GT_GT, 2150,
      1, mozjs_anon_sym_AMP, 2152, 1, mozjs_anon_sym_CARET, 2154, 1, mozjs_anon_sym_PIPE, 2158,
      1, mozjs_anon_sym_PERCENT, 2160, 1, mozjs_anon_sym_STAR_STAR, 639, 1, mozjs_sym_arguments,
      5, 2, mozjs_sym_html_comment, mozjs_sym_comment, 1600, 2, mozjs_anon_sym_PLUS_PLUS,
      mozjs_anon_sym_DASH_DASH, 2138, 2, mozjs_anon_sym_STAR, mozjs_anon_sym_SLASH, 2148, 2,
      mozjs_anon_sym_GT_GT_GT, mozjs_anon_sym_LT_LT, 2156, 2, mozjs_anon_sym_PLUS,
      mozjs_anon_sym_DASH, 2164, 2, mozjs_anon_sym_EQ_EQ, mozjs_anon_sym_BANG_EQ, 2166, 2,
      mozjs_anon_sym_EQ_EQ_EQ, mozjs_anon_sym_BANG_EQ_EQ, 2140, 3, mozjs_anon_sym_in,
      mozjs_anon_sym_LT, mozjs_anon_sym_GT, 2162, 3, mozjs_anon_sym_LT_EQ, mozjs_anon_sym_GT_EQ,
      mozjs_anon_sym_instanceof, 1789, 6, mozjs_sym__ternary_qmark, mozjs_anon_sym_of,
      mozjs_anon_sym_AMP_AMP, mozjs_anon_sym_PIPE_PIPE, mozjs_anon_sym_QMARK_QMARK,
      mozjs_anon_sym_BQUOTE]"

definition mozjs_small_run_38996 :: "nat list" where
  "mozjs_small_run_38996 =
    [22, 1578, 1, mozjs_anon_sym_LPAREN, 1580, 1, mozjs_anon_sym_LBRACK, 1582, 1,
      mozjs_anon_sym_DOT, 1594, 1, mozjs_sym_optional_chain, 2142, 1, mozjs_anon_sym_AMP_AMP,
      2146, 1, mozjs_anon_sym_GT_GT, 2150, 1, mozjs_anon_sym_AMP, 2152, 1, mozjs_anon_sym_CARET,
      2154, 1, mozjs_anon_sym_PIPE, 2158, 1, mozjs_anon_sym_PERCENT, 2160, 1,
      mozjs_anon_sym_STAR_STAR, 639, 1, mozjs_sym_arguments, 5, 2, mozjs_sym_html_comment,
      mozjs_sym_comment, 1600, 2, mozjs_anon_sym_PLUS_PLUS, mozjs_anon_sym_DASH_DASH, 2138, 2,
      mozjs_anon_sym_STAR, mozjs_anon_sym_SLASH, 2148, 2, mozjs_anon_sym_GT_GT_GT,
      mozjs_anon_sym_LT_LT, 2156, 2, mozjs_anon_sym_PLUS, mozjs_anon_sym_DASH, 2164, 2,
      mozjs_anon_sym_EQ_EQ, mozjs_anon_sym_BANG_EQ, 2166, 2, mozjs_anon_sym_EQ_EQ_EQ,
      mozjs_anon_sym_BANG_EQ_EQ, 2140, 3, mozjs_anon_sym_in, mozjs_anon_sym_LT,
      mozjs_anon_sym_GT, 2162, 3, mozjs_anon_sym_LT_EQ, mozjs_anon_sym_GT_EQ,
      mozjs_anon_sym_instanceof, 1789, 5, mozjs_sym__ternary_qmark, mozjs_anon_sym_of,
      mozjs_anon_sym_PIPE_PIPE, mozjs_anon_sym_QMARK_QMARK, mozjs_anon_sym_BQUOTE]"

definition mozjs_small_run_39078 :: "nat list" where
  "mozjs_small_run_39078 =
    [13, 1578, 1, mozjs_anon_sym_LPAREN, 1580, 1, mozjs_anon_sym_LBRACK, 1582, 1,
      mozjs_anon_sym_DOT, 1594, 1, mozjs_sym_optional_chain, 2158, 1, mozjs_anon_sym_PERCENT,
      2160, 1, mozjs_anon_sym_STAR_STAR, 639, 1, mozjs_sym_arguments, 5, 2,
      mozjs_sym_html_comment, mozjs_sym_comment, 1600, 2, mozjs_anon_sym_PLUS_PLUS,
      mozjs_anon_sym_DASH_DASH, 2138, 2, mozjs_anon_sym_STAR, mozjs_anon_sym_SLASH, 2156, 2,
      mozjs_anon_sym_PLUS, mozjs_anon_sym_DASH, 1797, 8, mozjs_anon_sym_in, mozjs_anon_sym_LT,
      mozjs_anon_sym_GT, mozjs_anon_sym_GT_GT, mozjs_anon_sym_AMP, mozjs_anon_sym_PIPE,
      mozjs_anon_sym_EQ_EQ, mozjs_anon_sym_BANG_EQ, 1789, 14, mozjs_sym__ternary_qmark,
      mozjs_anon_sym_of, mozjs_anon_sym_AMP_AMP, mozjs_anon_sym_PIPE_PIPE,
      mozjs_anon_sym_GT_GT_GT, mozjs_anon_sym_LT_LT, mozjs_anon_sym_CARET, mozjs_anon_sym_LT_EQ,
      mozjs_anon_sym_EQ_EQ_EQ, mozjs_anon_sym_BANG_EQ_EQ, mozjs_anon_sym_GT_EQ,
      mozjs_anon_sym_QMARK_QMARK, mozjs_anon_sym_instanceof, mozjs_anon_sym_BQUOTE]"

definition mozjs_small_run_39142 :: "nat list" where
  "mozjs_small_run_39142 =
    [19, 1578, 1, mozjs_anon_sym_LPAREN, 1580, 1, mozjs_anon_sym_LBRACK, 1582, 1,
      mozjs_anon_sym_DOT, 1594, 1, mozjs_sym_optional_chain, 2146, 1, mozjs_anon_sym_GT_GT, 2158,
      1, mozjs_anon_sym_PERCENT, 2160, 1, mozjs_anon_sym_STAR_STAR, 639, 1, mozjs_sym_arguments,
      5, 2, mozjs_sym_html_comment, mozjs_sym_comment, 1600, 2, mozjs_anon_sym_PLUS_PLUS,
      mozjs_anon_sym_DASH_DASH, 1797, 2, mozjs_anon_sym_AMP, mozjs_anon_sym_PIPE, 2138, 2,
      mozjs_anon_sym_STAR, mozjs_anon_sym_SLASH, 2148, 2, mozjs_anon_sym_GT_GT_GT,
      mozjs_anon_sym_LT_LT, 2156, 2, mozjs_anon_sym_PLUS, mozjs_anon_sym_DASH, 2164, 2,
      mozjs_anon_sym_EQ_EQ, mozjs_anon_sym_BANG_EQ, 2166, 2, mozjs_anon_sym_EQ_EQ_EQ,
      mozjs_anon_sym_BANG_EQ_EQ, 2140, 3, mozjs_anon_sym_in, mozjs_anon_sym_LT,
      mozjs_anon_sym_GT, 2162, 3, mozjs_anon_sym_LT_EQ, mozjs_anon_sym_GT_EQ,
      mozjs_anon_sym_instanceof, 1789, 7, mozjs_sym__ternary_qmark, mozjs_anon_sym_of,
      mozjs_anon_sym_AMP_AMP, mozjs_anon_sym_PIPE_PIPE, mozjs_anon_sym_CARET,
      mozjs_anon_sym_QMARK_QMARK, mozjs_anon_sym_BQUOTE]"

definition mozjs_small_run_39218 :: "nat list" where
  "mozjs_small_run_39218 =
    [20, 1578, 1, mozjs_anon_sym_LPAREN, 1580, 1, mozjs_anon_sym_LBRACK, 1582, 1,
      mozjs_anon_sym_DOT, 1594, 1, mozjs_sym_optional_chain, 1797, 1, mozjs_anon_sym_PIPE, 2146,
      1, mozjs_anon_sym_GT_GT, 2150, 1, mozjs_anon_sym_AMP, 2158, 1, mozjs_anon_sym_PERCENT,
      2160, 1, mozjs_anon_sym_STAR_STAR, 639, 1, mozjs_sym_arguments, 5, 2,
      mozjs_sym_html_comment, mozjs_sym_comment, 1600, 2, mozjs_anon_sym_PLUS_PLUS,
      mozjs_anon_sym_DASH_DASH, 2138, 2, mozjs_anon_sym_STAR, mozjs_anon_sym_SLASH, 2148, 2,
      mozjs_anon_sym_GT_GT_GT, mozjs_anon_sym_LT_LT, 2156, 2, mozjs_anon_sym_PLUS,
      mozjs_anon_sym_DASH, 2164, 2, mozjs_anon_sym_EQ_EQ, mozjs_anon_sym_BANG_EQ, 2166, 2,
      mozjs_anon_sym_EQ_EQ_EQ, mozjs_anon_sym_BANG_EQ_EQ, 2140, 3, mozjs_anon_sym_in,
      mozjs_anon_sym_LT, mozjs_anon_sym_GT, 2162, 3, mozjs_anon_sym_LT_EQ, mozjs_anon_sym_GT_EQ,
      mozjs_anon_sym_instanceof, 1789, 7, mozjs_sym__ternary_qmark, mozjs_anon_sym_of,
      mozjs_anon_sym_AMP_AMP, mozjs_anon_sym_PIPE_PIPE, mozjs_anon_sym_CARET,
      mozjs_anon_sym_QMARK_QMARK, mozjs_anon_sym_BQUOTE]"

definition mozjs_small_run_39296 :: "nat list" where
  "mozjs_small_run_39296 =
    [21, 1578, 1, mozjs_anon_sym_LPAREN, 1580, 1, mozjs_anon_sym_LBRACK, 1582, 1,
      mozjs_anon_sym_DOT, 1594, 1, mozjs_sym_optional_chain, 1797, 1, mozjs_anon_sym_PIPE, 2146,
      1, mozjs_anon_sym_GT_GT, 2150, 1, mozjs_anon_sym_AMP, 2152, 1, mozjs_anon_sym_CARET, 2158,
      1, mozjs_anon_sym_PERCENT, 2160, 1, mozjs_anon_sym_STAR_STAR, 639, 1, mozjs_sym_arguments,
      5, 2, mozjs_sym_html_comment, mozjs_sym_comment, 1600, 2, mozjs_anon_sym_PLUS_PLUS,
      mozjs_anon_sym_DASH_DASH, 2138, 2, mozjs_anon_sym_STAR, mozjs_anon_sym_SLASH, 2148, 2,
      mozjs_anon_sym_GT_GT_GT, mozjs_anon_sym_LT_LT, 2156, 2, mozjs_anon_sym_PLUS,
      mozjs_anon_sym_DASH, 2164, 2, mozjs_anon_sym_EQ_EQ, mozjs_anon_sym_BANG_EQ, 2166, 2,
      mozjs_anon_sym_EQ_EQ_EQ, mozjs_anon_sym_BANG_EQ_EQ, 2140, 3, mozjs_anon_sym_in,
      mozjs_anon_sym_LT, mozjs_anon_sym_GT, 2162, 3, mozjs_anon_sym_LT_EQ, mozjs_anon_sym_GT_EQ,
      mozjs_anon_sym_instanceof, 1789, 6, mozjs_sym__ternary_qmark, mozjs_anon_sym_of,
      mozjs_anon_sym_AMP_AMP, mozjs_anon_sym_PIPE_PIPE, mozjs_anon_sym_QMARK_QMARK,
      mozjs_anon_sym_BQUOTE]"

definition mozjs_small_run_39376 :: "nat list" where
  "mozjs_small_run_39376 =
    [12, 1578, 1, mozjs_anon_sym_LPAREN, 1580, 1, mozjs_anon_sym_LBRACK, 1582, 1,
      mozjs_anon_sym_DOT, 1594, 1, mozjs_sym_optional_chain, 2158, 1, mozjs_anon_sym_PERCENT,
      2160, 1, mozjs_anon_sym_STAR_STAR, 639, 1, mozjs_sym_arguments, 5, 2,
      mozjs_sym_html_comment, mozjs_sym_comment, 1600, 2, mozjs_anon_sym_PLUS_PLUS,
      mozjs_anon_sym_DASH_DASH, 2138, 2, mozjs_anon_sym_STAR, mozjs_anon_sym_SLASH, 1797, 10,
      mozjs_anon_sym_in, mozjs_anon_sym_LT, mozjs_anon_sym_GT, mozjs_anon_sym_GT_GT,
      mozjs_anon_sym_AMP, mozjs_anon_sym_PIPE, mozjs_anon_sym_PLUS, mozjs_anon_sym_DASH,
      mozjs_anon_sym_EQ_EQ, mozjs_anon_sym_BANG_EQ, 1789, 14, mozjs_sym__ternary_qmark,
      mozjs_anon_sym_of, mozjs_anon_sym_AMP_AMP, mozjs_anon_sym_PIPE_PIPE,
      mozjs_anon_sym_GT_GT_GT, mozjs_anon_sym_LT_LT, mozjs_anon_sym_CARET, mozjs_anon_sym_LT_EQ,
      mozjs_anon_sym_EQ_EQ_EQ, mozjs_anon_sym_BANG_EQ_EQ, mozjs_anon_sym_GT_EQ,
      mozjs_anon_sym_QMARK_QMARK, mozjs_anon_sym_instanceof, mozjs_anon_sym_BQUOTE]"

definition mozjs_small_run_39438 :: "nat list" where
  "mozjs_small_run_39438 =
    [10, 1578, 1, mozjs_anon_sym_LPAREN, 1580, 1, mozjs_anon_sym_LBRACK, 1582, 1,
      mozjs_anon_sym_DOT, 1594, 1, mozjs_sym_optional_chain, 2160, 1, mozjs_anon_sym_STAR_STAR,
      639, 1, mozjs_sym_arguments, 5, 2, mozjs_sym_html_comment, mozjs_sym_comment, 1600, 2,
      mozjs_anon_sym_PLUS_PLUS, mozjs_anon_sym_DASH_DASH, 1797, 12, mozjs_anon_sym_STAR,
      mozjs_anon_sym_in, mozjs_anon_sym_LT, mozjs_anon_sym_GT, mozjs_anon_sym_GT_GT,
      mozjs_anon_sym_AMP, mozjs_anon_sym_PIPE, mozjs_anon_sym_PLUS, mozjs_anon_sym_DASH,
      mozjs_anon_sym_SLASH, mozjs_anon_sym_EQ_EQ, mozjs_anon_sym_BANG_EQ, 1789, 15,
      mozjs_sym__ternary_qmark, mozjs_anon_sym_of, mozjs_anon_sym_AMP_AMP,
      mozjs_anon_sym_PIPE_PIPE, mozjs_anon_sym_GT_GT_GT, mozjs_anon_sym_LT_LT,
      mozjs_anon_sym_CARET, mozjs_anon_sym_PERCENT, mozjs_anon_sym_LT_EQ,
      mozjs_anon_sym_EQ_EQ_EQ, mozjs_anon_sym_BANG_EQ_EQ, mozjs_anon_sym_GT_EQ,
      mozjs_anon_sym_QMARK_QMARK, mozjs_anon_sym_instanceof, mozjs_anon_sym_BQUOTE]"

definition mozjs_small_run_39496 :: "nat list" where
  "mozjs_small_run_39496 =
    [17, 1578, 1, mozjs_anon_sym_LPAREN, 1580, 1, mozjs_anon_sym_LBRACK, 1582, 1,
      mozjs_anon_sym_DOT, 1594, 1, mozjs_sym_optional_chain, 2146, 1, mozjs_anon_sym_GT_GT, 2158,
      1, mozjs_anon_sym_PERCENT, 2160, 1, mozjs_anon_sym_STAR_STAR, 639, 1, mozjs_sym_arguments,
      5, 2, mozjs_sym_html_comment, mozjs_sym_comment, 1600, 2, mozjs_anon_sym_PLUS_PLUS,
      mozjs_anon_sym_DASH_DASH, 2138, 2, mozjs_anon_sym_STAR, mozjs_anon_sym_SLASH, 2148, 2,
      mozjs_anon_sym_GT_GT_GT, mozjs_anon_sym_LT_LT, 2156, 2, mozjs_anon_sym_PLUS,
      mozjs_anon_sym_DASH, 2140, 3, mozjs_anon_sym_in, mozjs_anon_sym_LT, mozjs_anon_sym_GT,
      2162, 3, mozjs_anon_sym_LT_EQ, mozjs_anon_sym_GT_EQ, mozjs_anon_sym_instanceof, 1797, 4,
      mozjs_anon_sym_AMP, mozjs_anon_sym_PIPE, mozjs_anon_sym_EQ_EQ, mozjs_anon_sym_BANG_EQ,
      1789, 9, mozjs_sym__ternary_qmark, mozjs_anon_sym_of, mozjs_anon_sym_AMP_AMP,
      mozjs_anon_sym_PIPE_PIPE, mozjs_anon_sym_CARET, mozjs_anon_sym_EQ_EQ_EQ,
      mozjs_anon_sym_BANG_EQ_EQ, mozjs_anon_sym_QMARK_QMARK, mozjs_anon_sym_BQUOTE]"

definition mozjs_small_run_39568 :: "nat list" where
  "mozjs_small_run_39568 =
    [23, 1578, 1, mozjs_anon_sym_LPAREN, 1580, 1, mozjs_anon_sym_LBRACK, 1582, 1,
      mozjs_anon_sym_DOT, 1594, 1, mozjs_sym_optional_chain, 2142, 1, mozjs_anon_sym_AMP_AMP,
      2144, 1, mozjs_anon_sym_PIPE_PIPE, 2146, 1, mozjs_anon_sym_GT_GT, 2150, 1,
      mozjs_anon_sym_AMP, 2152, 1, mozjs_anon_sym_CARET, 2154, 1, mozjs_anon_sym_PIPE, 2158, 1,
      mozjs_anon_sym_PERCENT, 2160, 1, mozjs_anon_sym_STAR_STAR, 639, 1, mozjs_sym_arguments, 5,
      2, mozjs_sym_html_comment, mozjs_sym_comment, 1600, 2, mozjs_anon_sym_PLUS_PLUS,
      mozjs_anon_sym_DASH_DASH, 2138, 2, mozjs_anon_sym_STAR, mozjs_anon_sym_SLASH, 2148, 2,
      mozjs_anon_sym_GT_GT_GT, mozjs_anon_sym_LT_LT, 2156, 2, mozjs_anon_sym_PLUS,
      mozjs_anon_sym_DASH, 2164, 2, mozjs_anon_sym_EQ_EQ, mozjs_anon_sym_BANG_EQ, 2166, 2,
      mozjs_anon_sym_EQ_EQ_EQ, mozjs_anon_sym_BANG_EQ_EQ, 2140, 3, mozjs_anon_sym_in,
      mozjs_anon_sym_LT, mozjs_anon_sym_GT, 2162, 3, mozjs_anon_sym_LT_EQ, mozjs_anon_sym_GT_EQ,
      mozjs_anon_sym_instanceof, 1789, 4, mozjs_sym__ternary_qmark, mozjs_anon_sym_of,
      mozjs_anon_sym_QMARK_QMARK, mozjs_anon_sym_BQUOTE]"

definition mozjs_small_run_39652 :: "nat list" where
  "mozjs_small_run_39652 =
    [25, 1578, 1, mozjs_anon_sym_LPAREN, 1580, 1, mozjs_anon_sym_LBRACK, 1582, 1,
      mozjs_anon_sym_DOT, 1594, 1, mozjs_sym_optional_chain, 2142, 1, mozjs_anon_sym_AMP_AMP,
      2144, 1, mozjs_anon_sym_PIPE_PIPE, 2146, 1, mozjs_anon_sym_GT_GT, 2150, 1,
      mozjs_anon_sym_AMP, 2152, 1, mozjs_anon_sym_CARET, 2154, 1, mozjs_anon_sym_PIPE, 2158, 1,
      mozjs_anon_sym_PERCENT, 2160, 1, mozjs_anon_sym_STAR_STAR, 2168, 1,
      mozjs_anon_sym_QMARK_QMARK, 2170, 1, mozjs_sym__ternary_qmark, 639, 1, mozjs_sym_arguments,
      5, 2, mozjs_sym_html_comment, mozjs_sym_comment, 1600, 2, mozjs_anon_sym_PLUS_PLUS,
      mozjs_anon_sym_DASH_DASH, 1839, 2, mozjs_anon_sym_of, mozjs_anon_sym_BQUOTE, 2138, 2,
      mozjs_anon_sym_STAR, mozjs_anon_sym_SLASH, 2148, 2, mozjs_anon_sym_GT_GT_GT,
      mozjs_anon_sym_LT_LT, 2156, 2, mozjs_anon_sym_PLUS, mozjs_anon_sym_DASH, 2164, 2,
      mozjs_anon_sym_EQ_EQ, mozjs_anon_sym_BANG_EQ, 2166, 2, mozjs_anon_sym_EQ_EQ_EQ,
      mozjs_anon_sym_BANG_EQ_EQ, 2140, 3, mozjs_anon_sym_in, mozjs_anon_sym_LT,
      mozjs_anon_sym_GT, 2162, 3, mozjs_anon_sym_LT_EQ, mozjs_anon_sym_GT_EQ,
      mozjs_anon_sym_instanceof]"

definition mozjs_small_run_39740 :: "nat list" where
  "mozjs_small_run_39740 =
    [25, 1578, 1, mozjs_anon_sym_LPAREN, 1580, 1, mozjs_anon_sym_LBRACK, 1582, 1,
      mozjs_anon_sym_DOT, 1594, 1, mozjs_sym_optional_chain, 2142, 1, mozjs_anon_sym_AMP_AMP,
      2144, 1, mozjs_anon_sym_PIPE_PIPE, 2146, 1, mozjs_anon_sym_GT_GT, 2150, 1,
      mozjs_anon_sym_AMP, 2152, 1, mozjs_anon_sym_CARET, 2154, 1, mozjs_anon_sym_PIPE, 2158, 1,
      mozjs_anon_sym_PERCENT, 2160, 1, mozjs_anon_sym_STAR_STAR, 2168, 1,
      mozjs_anon_sym_QMARK_QMARK, 2170, 1, mozjs_sym__ternary_qmark, 639, 1, mozjs_sym_arguments,
      5, 2, mozjs_sym_html_comment, mozjs_sym_comment, 1600, 2, mozjs_anon_sym_PLUS_PLUS,
      mozjs_anon_sym_DASH_DASH, 1752, 2, mozjs_anon_sym_of, mozjs_anon_sym_BQUOTE, 2138, 2,
      mozjs_anon_sym_STAR, mozjs_anon_sym_SLASH, 2148, 2, mozjs_anon_sym_GT_GT_GT,
      mozjs_anon_sym_LT_LT, 2156, 2, mozjs_anon_sym_PLUS, mozjs_anon_sym_DASH, 2164, 2,
      mozjs_anon_sym_EQ_EQ, mozjs_anon_sym_BANG_EQ, 2166, 2, mozjs_anon_sym_EQ_EQ_EQ,
      mozjs_anon_sym_BANG_EQ_EQ, 2140, 3, mozjs_anon_sym_in, mozjs_anon_sym_LT,
      mozjs_anon_sym_GT, 2162, 3, mozjs_anon_sym_LT_EQ, mozjs_anon_sym_GT_EQ,
      mozjs_anon_sym_instanceof]"

definition mozjs_small_run_39828 :: "nat list" where
  "mozjs_small_run_39828 =
    [25, 1578, 1, mozjs_anon_sym_LPAREN, 1580, 1, mozjs_anon_sym_LBRACK, 1582, 1,
      mozjs_anon_sym_DOT, 1594, 1, mozjs_sym_optional_chain, 2142, 1, mozjs_anon_sym_AMP_AMP,
      2144, 1, mozjs_anon_sym_PIPE_PIPE, 2146, 1, mozjs_anon_sym_GT_GT, 2150, 1,
      mozjs_anon_sym_AMP, 2152, 1, mozjs_anon_sym_CARET, 2154, 1, mozjs_anon_sym_PIPE, 2158, 1,
      mozjs_anon_sym_PERCENT, 2160, 1, mozjs_anon_sym_STAR_STAR, 2168, 1,
      mozjs_anon_sym_QMARK_QMARK, 2170, 1, mozjs_sym__ternary_qmark, 639, 1, mozjs_sym_arguments,
      5, 2, mozjs_sym_html_comment, mozjs_sym_comment, 1600, 2, mozjs_anon_sym_PLUS_PLUS,
      mozjs_anon_sym_DASH_DASH, 1720, 2, mozjs_anon_sym_of, mozjs_anon_sym_BQUOTE, 2138, 2,
      mozjs_anon_sym_STAR, mozjs_anon_sym_SLASH, 2148, 2, mozjs_anon_sym_GT_GT_GT,
      mozjs_anon_sym_LT_LT, 2156, 2, mozjs_anon_sym_PLUS, mozjs_anon_sym_DASH, 2164, 2,
      mozjs_anon_sym_EQ_EQ, mozjs_anon_sym_BANG_EQ, 2166, 2, mozjs_anon_sym_EQ_EQ_EQ,
      mozjs_anon_sym_BANG_EQ_EQ, 2140, 3, mozjs_anon_sym_in, mozjs_anon_sym_LT,
      mozjs_anon_sym_GT, 2162, 3, mozjs_anon_sym_LT_EQ, mozjs_anon_sym_GT_EQ,
      mozjs_anon_sym_instanceof]"

definition mozjs_small_run_39916 :: "nat list" where
  "mozjs_small_run_39916 =
    [10, 1578, 1, mozjs_anon_sym_LPAREN, 1580, 1, mozjs_anon_sym_LBRACK, 1582, 1,
      mozjs_anon_sym_DOT, 1594, 1, mozjs_sym_optional_chain, 2186, 1, mozjs_anon_sym_STAR_STAR,
      639, 1, mozjs_sym_arguments, 5, 2, mozjs_sym_html_comment, mozjs_sym_comment, 1600, 2,
      mozjs_anon_sym_PLUS_PLUS, mozjs_anon_sym_DASH_DASH, 1797, 12, mozjs_anon_sym_STAR,
      mozjs_anon_sym_in, mozjs_anon_sym_LT, mozjs_anon_sym_GT, mozjs_anon_sym_GT_GT,
      mozjs_anon_sym_AMP, mozjs_anon_sym_PIPE, mozjs_anon_sym_PLUS, mozjs_anon_sym_DASH,
      mozjs_anon_sym_SLASH, mozjs_anon_sym_EQ_EQ, mozjs_anon_sym_BANG_EQ, 1789, 15,
      mozjs_sym__ternary_qmark, mozjs_anon_sym_LBRACE, mozjs_anon_sym_AMP_AMP,
      mozjs_anon_sym_PIPE_PIPE, mozjs_anon_sym_GT_GT_GT, mozjs_anon_sym_LT_LT,
      mozjs_anon_sym_CARET, mozjs_anon_sym_PERCENT, mozjs_anon_sym_LT_EQ,
      mozjs_anon_sym_EQ_EQ_EQ, mozjs_anon_sym_BANG_EQ_EQ, mozjs_anon_sym_GT_EQ,
      mozjs_anon_sym_QMARK_QMARK, mozjs_anon_sym_instanceof, mozjs_anon_sym_BQUOTE]"

definition mozjs_small_run_39974 :: "nat list" where
  "mozjs_small_run_39974 =
    [25, 1578, 1, mozjs_anon_sym_LPAREN, 1580, 1, mozjs_anon_sym_LBRACK, 1582, 1,
      mozjs_anon_sym_DOT, 1594, 1, mozjs_sym_optional_chain, 2142, 1, mozjs_anon_sym_AMP_AMP,
      2144, 1, mozjs_anon_sym_PIPE_PIPE, 2146, 1, mozjs_anon_sym_GT_GT, 2150, 1,
      mozjs_anon_sym_AMP, 2152, 1, mozjs_anon_sym_CARET, 2154, 1, mozjs_anon_sym_PIPE, 2158, 1,
      mozjs_anon_sym_PERCENT, 2160, 1, mozjs_anon_sym_STAR_STAR, 2168, 1,
      mozjs_anon_sym_QMARK_QMARK, 2170, 1, mozjs_sym__ternary_qmark, 639, 1, mozjs_sym_arguments,
      5, 2, mozjs_sym_html_comment, mozjs_sym_comment, 1600, 2, mozjs_anon_sym_PLUS_PLUS,
      mozjs_anon_sym_DASH_DASH, 1768, 2, mozjs_anon_sym_of, mozjs_anon_sym_BQUOTE, 2138, 2,
      mozjs_anon_sym_STAR, mozjs_anon_sym_SLASH, 2148, 2, mozjs_anon_sym_GT_GT_GT,
      mozjs_anon_sym_LT_LT, 2156, 2, mozjs_anon_sym_PLUS, mozjs_anon_sym_DASH, 2164, 2,
      mozjs_anon_sym_EQ_EQ, mozjs_anon_sym_BANG_EQ, 2166, 2, mozjs_anon_sym_EQ_EQ_EQ,
      mozjs_anon_sym_BANG_EQ_EQ, 2140, 3, mozjs_anon_sym_in, mozjs_anon_sym_LT,
      mozjs_anon_sym_GT, 2162, 3, mozjs_anon_sym_LT_EQ, mozjs_anon_sym_GT_EQ,
      mozjs_anon_sym_instanceof]"

definition mozjs_small_run_40062 :: "nat list" where
  "mozjs_small_run_40062 =
    [25, 1578, 1, mozjs_anon_sym_LPAREN, 1580, 1, mozjs_anon_sym_LBRACK, 1582, 1,
      mozjs_anon_sym_DOT, 1594, 1, mozjs_sym_optional_chain, 2142, 1, mozjs_anon_sym_AMP_AMP,
      2144, 1, mozjs_anon_sym_PIPE_PIPE, 2146, 1, mozjs_anon_sym_GT_GT, 2150, 1,
      mozjs_anon_sym_AMP, 2152, 1, mozjs_anon_sym_CARET, 2154, 1, mozjs_anon_sym_PIPE, 2158, 1,
      mozjs_anon_sym_PERCENT, 2160, 1, mozjs_anon_sym_STAR_STAR, 2168, 1,
      mozjs_anon_sym_QMARK_QMARK, 2170, 1, mozjs_sym__ternary_qmark, 639, 1, mozjs_sym_arguments,
      5, 2, mozjs_sym_html_comment, mozjs_sym_comment, 1600, 2, mozjs_anon_sym_PLUS_PLUS,
      mozjs_anon_sym_DASH_DASH, 1843, 2, mozjs_anon_sym_of, mozjs_anon_sym_BQUOTE, 2138, 2,
      mozjs_anon_sym_STAR, mozjs_anon_sym_SLASH, 2148, 2, mozjs_anon_sym_GT_GT_GT,
      mozjs_anon_sym_LT_LT, 2156, 2, mozjs_anon_sym_PLUS, mozjs_anon_sym_DASH, 2164, 2,
      mozjs_anon_sym_EQ_EQ, mozjs_anon_sym_BANG_EQ, 2166, 2, mozjs_anon_sym_EQ_EQ_EQ,
      mozjs_anon_sym_BANG_EQ_EQ, 2140, 3, mozjs_anon_sym_in, mozjs_anon_sym_LT,
      mozjs_anon_sym_GT, 2162, 3, mozjs_anon_sym_LT_EQ, mozjs_anon_sym_GT_EQ,
      mozjs_anon_sym_instanceof]"

definition mozjs_small_run_40150 :: "nat list" where
  "mozjs_small_run_40150 =
    [6, 1472, 1, mozjs_anon_sym_EQ, 1554, 1, mozjs_anon_sym_of, 1556, 1, mozjs_anon_sym_in, 5, 2,
      mozjs_sym_html_comment, mozjs_sym_comment, 1435, 11, mozjs_anon_sym_STAR,
      mozjs_anon_sym_LT, mozjs_anon_sym_GT, mozjs_anon_sym_GT_GT, mozjs_anon_sym_AMP,
      mozjs_anon_sym_PIPE, mozjs_anon_sym_PLUS, mozjs_anon_sym_DASH, mozjs_anon_sym_SLASH,
      mozjs_anon_sym_EQ_EQ, mozjs_anon_sym_BANG_EQ, 1437, 21, mozjs_sym__ternary_qmark,
      mozjs_anon_sym_LPAREN, mozjs_anon_sym_LBRACK, mozjs_anon_sym_DOT, mozjs_sym_optional_chain,
      mozjs_anon_sym_AMP_AMP, mozjs_anon_sym_PIPE_PIPE, mozjs_anon_sym_GT_GT_GT,
      mozjs_anon_sym_LT_LT, mozjs_anon_sym_CARET, mozjs_anon_sym_PERCENT,
      mozjs_anon_sym_STAR_STAR, mozjs_anon_sym_LT_EQ, mozjs_anon_sym_EQ_EQ_EQ,
      mozjs_anon_sym_BANG_EQ_EQ, mozjs_anon_sym_GT_EQ, mozjs_anon_sym_QMARK_QMARK,
      mozjs_anon_sym_instanceof, mozjs_anon_sym_PLUS_PLUS, mozjs_anon_sym_DASH_DASH,
      mozjs_anon_sym_BQUOTE]"

definition mozjs_small_run_40200 :: "nat list" where
  "mozjs_small_run_40200 =
    [21, 1578, 1, mozjs_anon_sym_LPAREN, 1580, 1, mozjs_anon_sym_LBRACK, 1582, 1,
      mozjs_anon_sym_DOT, 1594, 1, mozjs_sym_optional_chain, 2176, 1, mozjs_anon_sym_GT_GT, 2180,
      1, mozjs_anon_sym_AMP, 2184, 1, mozjs_anon_sym_PERCENT, 2186, 1, mozjs_anon_sym_STAR_STAR,
      2194, 1, mozjs_anon_sym_CARET, 2200, 1, mozjs_anon_sym_PIPE, 639, 1, mozjs_sym_arguments,
      5, 2, mozjs_sym_html_comment, mozjs_sym_comment, 1600, 2, mozjs_anon_sym_PLUS_PLUS,
      mozjs_anon_sym_DASH_DASH, 2172, 2, mozjs_anon_sym_STAR, mozjs_anon_sym_SLASH, 2178, 2,
      mozjs_anon_sym_GT_GT_GT, mozjs_anon_sym_LT_LT, 2182, 2, mozjs_anon_sym_PLUS,
      mozjs_anon_sym_DASH, 2190, 2, mozjs_anon_sym_EQ_EQ, mozjs_anon_sym_BANG_EQ, 2192, 2,
      mozjs_anon_sym_EQ_EQ_EQ, mozjs_anon_sym_BANG_EQ_EQ, 2174, 3, mozjs_anon_sym_in,
      mozjs_anon_sym_LT, mozjs_anon_sym_GT, 2188, 3, mozjs_anon_sym_LT_EQ, mozjs_anon_sym_GT_EQ,
      mozjs_anon_sym_instanceof, 1789, 6, mozjs_sym__ternary_qmark, mozjs_anon_sym_LBRACE,
      mozjs_anon_sym_AMP_AMP, mozjs_anon_sym_PIPE_PIPE, mozjs_anon_sym_QMARK_QMARK,
      mozjs_anon_sym_BQUOTE]"

definition mozjs_small_run_40280 :: "nat list" where
  "mozjs_small_run_40280 =
    [22, 1578, 1, mozjs_anon_sym_LPAREN, 1580, 1, mozjs_anon_sym_LBRACK, 1582, 1,
      mozjs_anon_sym_DOT, 1594, 1, mozjs_sym_optional_chain, 2176, 1, mozjs_anon_sym_GT_GT, 2180,
      1, mozjs_anon_sym_AMP, 2184, 1, mozjs_anon_sym_PERCENT, 2186, 1, mozjs_anon_sym_STAR_STAR,
      2194, 1, mozjs_anon_sym_CARET, 2196, 1, mozjs_anon_sym_AMP_AMP, 2200, 1,
      mozjs_anon_sym_PIPE, 639, 1, mozjs_sym_arguments, 5, 2, mozjs_sym_html_comment,
      mozjs_sym_comment, 1600, 2, mozjs_anon_sym_PLUS_PLUS, mozjs_anon_sym_DASH_DASH, 2172, 2,
      mozjs_anon_sym_STAR, mozjs_anon_sym_SLASH, 2178, 2, mozjs_anon_sym_GT_GT_GT,
      mozjs_anon_sym_LT_LT, 2182, 2, mozjs_anon_sym_PLUS, mozjs_anon_sym_DASH, 2190, 2,
      mozjs_anon_sym_EQ_EQ, mozjs_anon_sym_BANG_EQ, 2192, 2, mozjs_anon_sym_EQ_EQ_EQ,
      mozjs_anon_sym_BANG_EQ_EQ, 2174, 3, mozjs_anon_sym_in, mozjs_anon_sym_LT,
      mozjs_anon_sym_GT, 2188, 3, mozjs_anon_sym_LT_EQ, mozjs_anon_sym_GT_EQ,
      mozjs_anon_sym_instanceof, 1789, 5, mozjs_sym__ternary_qmark, mozjs_anon_sym_LBRACE,
      mozjs_anon_sym_PIPE_PIPE, mozjs_anon_sym_QMARK_QMARK, mozjs_anon_sym_BQUOTE]"

definition mozjs_small_run_40362 :: "nat list" where
  "mozjs_small_run_40362 =
    [25, 1578, 1, mozjs_anon_sym_LPAREN, 1580, 1, mozjs_anon_sym_LBRACK, 1582, 1,
      mozjs_anon_sym_DOT, 1594, 1, mozjs_sym_optional_chain, 2218, 1, mozjs_anon_sym_AMP_AMP,
      2220, 1, mozjs_anon_sym_PIPE_PIPE, 2222, 1, mozjs_anon_sym_GT_GT, 2226, 1,
      mozjs_anon_sym_AMP, 2228, 1, mozjs_anon_sym_CARET, 2230, 1, mozjs_anon_sym_PIPE, 2234, 1,
      mozjs_anon_sym_PERCENT, 2236, 1, mozjs_anon_sym_STAR_STAR, 2244, 1,
      mozjs_anon_sym_QMARK_QMARK, 2246, 1, mozjs_sym__ternary_qmark, 639, 1, mozjs_sym_arguments,
      5, 2, mozjs_sym_html_comment, mozjs_sym_comment, 1600, 2, mozjs_anon_sym_PLUS_PLUS,
      mozjs_anon_sym_DASH_DASH, 1807, 2, mozjs_anon_sym_COLON, mozjs_anon_sym_BQUOTE, 2214, 2,
      mozjs_anon_sym_STAR, mozjs_anon_sym_SLASH, 2224, 2, mozjs_anon_sym_GT_GT_GT,
      mozjs_anon_sym_LT_LT, 2232, 2, mozjs_anon_sym_PLUS, mozjs_anon_sym_DASH, 2240, 2,
      mozjs_anon_sym_EQ_EQ, mozjs_anon_sym_BANG_EQ, 2242, 2, mozjs_anon_sym_EQ_EQ_EQ,
      mozjs_anon_sym_BANG_EQ_EQ, 2216, 3, mozjs_anon_sym_in, mozjs_anon_sym_LT,
      mozjs_anon_sym_GT, 2238, 3, mozjs_anon_sym_LT_EQ, mozjs_anon_sym_GT_EQ,
      mozjs_anon_sym_instanceof]"

definition mozjs_small_run_40450 :: "nat list" where
  "mozjs_small_run_40450 =
    [4, 1568, 1, mozjs_anon_sym_EQ, 5, 2, mozjs_sym_html_comment, mozjs_sym_comment, 1435, 12,
      mozjs_anon_sym_STAR, mozjs_anon_sym_in, mozjs_anon_sym_LT, mozjs_anon_sym_GT,
      mozjs_anon_sym_GT_GT, mozjs_anon_sym_AMP, mozjs_anon_sym_PIPE, mozjs_anon_sym_PLUS,
      mozjs_anon_sym_DASH, mozjs_anon_sym_SLASH, mozjs_anon_sym_EQ_EQ, mozjs_anon_sym_BANG_EQ,
      1437, 22, mozjs_sym__ternary_qmark, mozjs_anon_sym_of, mozjs_anon_sym_LPAREN,
      mozjs_anon_sym_LBRACK, mozjs_anon_sym_DOT, mozjs_sym_optional_chain,
      mozjs_anon_sym_AMP_AMP, mozjs_anon_sym_PIPE_PIPE, mozjs_anon_sym_GT_GT_GT,
      mozjs_anon_sym_LT_LT, mozjs_anon_sym_CARET, mozjs_anon_sym_PERCENT,
      mozjs_anon_sym_STAR_STAR, mozjs_anon_sym_LT_EQ, mozjs_anon_sym_EQ_EQ_EQ,
      mozjs_anon_sym_BANG_EQ_EQ, mozjs_anon_sym_GT_EQ, mozjs_anon_sym_QMARK_QMARK,
      mozjs_anon_sym_instanceof, mozjs_anon_sym_PLUS_PLUS, mozjs_anon_sym_DASH_DASH,
      mozjs_anon_sym_BQUOTE]"

definition mozjs_small_run_40496 :: "nat list" where
  "mozjs_small_run_40496 =
    [25, 1578, 1, mozjs_anon_sym_LPAREN, 1580, 1, mozjs_anon_sym_LBRACK, 1582, 1,
      mozjs_anon_sym_DOT, 1594, 1, mozjs_sym_optional_chain, 2142, 1, mozjs_anon_sym_AMP_AMP,
      2144, 1, mozjs_anon_sym_PIPE_PIPE, 2146, 1, mozjs_anon_sym_GT_GT, 2150, 1,
      mozjs_anon_sym_AMP, 2152, 1, mozjs_anon_sym_CARET, 2154, 1, mozjs_anon_sym_PIPE, 2158, 1,
      mozjs_anon_sym_PERCENT, 2160, 1, mozjs_anon_sym_STAR_STAR, 2168, 1,
      mozjs_anon_sym_QMARK_QMARK, 2170, 1, mozjs_sym__ternary_qmark, 639, 1, mozjs_sym_arguments,
      5, 2, mozjs_sym_html_comment, mozjs_sym_comment, 1600, 2, mozjs_anon_sym_PLUS_PLUS,
      mozjs_anon_sym_DASH_DASH, 1807, 2, mozjs_anon_sym_of, mozjs_anon_sym_BQUOTE, 2138, 2,
      mozjs_anon_sym_STAR, mozjs_anon_sym_SLASH, 2148, 2, mozjs_anon_sym_GT_GT_GT,
      mozjs_anon_sym_LT_LT, 2156, 2, mozjs_anon_sym_PLUS, mozjs_anon_sym_DASH, 2164, 2,
      mozjs_anon_sym_EQ_EQ, mozjs_anon_sym_BANG_EQ, 2166, 2, mozjs_anon_sym_EQ_EQ_EQ,
      mozjs_anon_sym_BANG_EQ_EQ, 2140, 3, mozjs_anon_sym_in, mozjs_anon_sym_LT,
      mozjs_anon_sym_GT, 2162, 3, mozjs_anon_sym_LT_EQ, mozjs_anon_sym_GT_EQ,
      mozjs_anon_sym_instanceof]"

definition mozjs_small_run_40584 :: "nat list" where
  "mozjs_small_run_40584 =
    [13, 1578, 1, mozjs_anon_sym_LPAREN, 1580, 1, mozjs_anon_sym_LBRACK, 1582, 1,
      mozjs_anon_sym_DOT, 1594, 1, mozjs_sym_optional_chain, 2184, 1, mozjs_anon_sym_PERCENT,
      2186, 1, mozjs_anon_sym_STAR_STAR, 639, 1, mozjs_sym_arguments, 5, 2,
      mozjs_sym_html_comment, mozjs_sym_comment, 1600, 2, mozjs_anon_sym_PLUS_PLUS,
      mozjs_anon_sym_DASH_DASH, 2172, 2, mozjs_anon_sym_STAR, mozjs_anon_sym_SLASH, 2182, 2,
      mozjs_anon_sym_PLUS, mozjs_anon_sym_DASH, 1797, 8, mozjs_anon_sym_in, mozjs_anon_sym_LT,
      mozjs_anon_sym_GT, mozjs_anon_sym_GT_GT, mozjs_anon_sym_AMP, mozjs_anon_sym_PIPE,
      mozjs_anon_sym_EQ_EQ, mozjs_anon_sym_BANG_EQ, 1789, 14, mozjs_sym__ternary_qmark,
      mozjs_anon_sym_LBRACE, mozjs_anon_sym_AMP_AMP, mozjs_anon_sym_PIPE_PIPE,
      mozjs_anon_sym_GT_GT_GT, mozjs_anon_sym_LT_LT, mozjs_anon_sym_CARET, mozjs_anon_sym_LT_EQ,
      mozjs_anon_sym_EQ_EQ_EQ, mozjs_anon_sym_BANG_EQ_EQ, mozjs_anon_sym_GT_EQ,
      mozjs_anon_sym_QMARK_QMARK, mozjs_anon_sym_instanceof, mozjs_anon_sym_BQUOTE]"

definition mozjs_small_run_40648 :: "nat list" where
  "mozjs_small_run_40648 =
    [21, 1578, 1, mozjs_anon_sym_LPAREN, 1580, 1, mozjs_anon_sym_LBRACK, 1582, 1,
      mozjs_anon_sym_DOT, 1594, 1, mozjs_sym_optional_chain, 1797, 1, mozjs_anon_sym_PIPE, 2222,
      1, mozjs_anon_sym_GT_GT, 2226, 1, mozjs_anon_sym_AMP, 2228, 1, mozjs_anon_sym_CARET, 2234,
      1, mozjs_anon_sym_PERCENT, 2236, 1, mozjs_anon_sym_STAR_STAR, 639, 1, mozjs_sym_arguments,
      5, 2, mozjs_sym_html_comment, mozjs_sym_comment, 1600, 2, mozjs_anon_sym_PLUS_PLUS,
      mozjs_anon_sym_DASH_DASH, 2214, 2, mozjs_anon_sym_STAR, mozjs_anon_sym_SLASH, 2224, 2,
      mozjs_anon_sym_GT_GT_GT, mozjs_anon_sym_LT_LT, 2232, 2, mozjs_anon_sym_PLUS,
      mozjs_anon_sym_DASH, 2240, 2, mozjs_anon_sym_EQ_EQ, mozjs_anon_sym_BANG_EQ, 2242, 2,
      mozjs_anon_sym_EQ_EQ_EQ, mozjs_anon_sym_BANG_EQ_EQ, 2216, 3, mozjs_anon_sym_in,
      mozjs_anon_sym_LT, mozjs_anon_sym_GT, 2238, 3, mozjs_anon_sym_LT_EQ, mozjs_anon_sym_GT_EQ,
      mozjs_anon_sym_instanceof, 1789, 6, mozjs_sym__ternary_qmark, mozjs_anon_sym_COLON,
      mozjs_anon_sym_AMP_AMP, mozjs_anon_sym_PIPE_PIPE, mozjs_anon_sym_QMARK_QMARK,
      mozjs_anon_sym_BQUOTE]"

definition mozjs_small_run_40728 :: "nat list" where
  "mozjs_small_run_40728 =
    [25, 1578, 1, mozjs_anon_sym_LPAREN, 1580, 1, mozjs_anon_sym_LBRACK, 1582, 1,
      mozjs_anon_sym_DOT, 1594, 1, mozjs_sym_optional_chain, 2218, 1, mozjs_anon_sym_AMP_AMP,
      2220, 1, mozjs_anon_sym_PIPE_PIPE, 2222, 1, mozjs_anon_sym_GT_GT, 2226, 1,
      mozjs_anon_sym_AMP, 2228, 1, mozjs_anon_sym_CARET, 2230, 1, mozjs_anon_sym_PIPE, 2234, 1,
      mozjs_anon_sym_PERCENT, 2236, 1, mozjs_anon_sym_STAR_STAR, 2244, 1,
      mozjs_anon_sym_QMARK_QMARK, 2246, 1, mozjs_sym__ternary_qmark, 2248, 1,
      mozjs_anon_sym_COLON, 639, 1, mozjs_sym_arguments, 5, 2, mozjs_sym_html_comment,
      mozjs_sym_comment, 1600, 2, mozjs_anon_sym_PLUS_PLUS, mozjs_anon_sym_DASH_DASH, 2214, 2,
      mozjs_anon_sym_STAR, mozjs_anon_sym_SLASH, 2224, 2, mozjs_anon_sym_GT_GT_GT,
      mozjs_anon_sym_LT_LT, 2232, 2, mozjs_anon_sym_PLUS, mozjs_anon_sym_DASH, 2240, 2,
      mozjs_anon_sym_EQ_EQ, mozjs_anon_sym_BANG_EQ, 2242, 2, mozjs_anon_sym_EQ_EQ_EQ,
      mozjs_anon_sym_BANG_EQ_EQ, 2216, 3, mozjs_anon_sym_in, mozjs_anon_sym_LT,
      mozjs_anon_sym_GT, 2238, 3, mozjs_anon_sym_LT_EQ, mozjs_anon_sym_GT_EQ,
      mozjs_anon_sym_instanceof]"

definition mozjs_small_run_40815 :: "nat list" where
  "mozjs_small_run_40815 =
    [25, 1578, 1, mozjs_anon_sym_LPAREN, 1580, 1, mozjs_anon_sym_LBRACK, 1582, 1,
      mozjs_anon_sym_DOT, 1594, 1, mozjs_sym_optional_chain, 2218, 1, mozjs_anon_sym_AMP_AMP,
      2220, 1, mozjs_anon_sym_PIPE_PIPE, 2222, 1, mozjs_anon_sym_GT_GT, 2226, 1,
      mozjs_anon_sym_AMP, 2228, 1, mozjs_anon_sym_CARET, 2230, 1, mozjs_anon_sym_PIPE, 2234, 1,
      mozjs_anon_sym_PERCENT, 2236, 1, mozjs_anon_sym_STAR_STAR, 2244, 1,
      mozjs_anon_sym_QMARK_QMARK, 2246, 1, mozjs_sym__ternary_qmark, 2250, 1,
      mozjs_anon_sym_COLON, 639, 1, mozjs_sym_arguments, 5, 2, mozjs_sym_html_comment,
      mozjs_sym_comment, 1600, 2, mozjs_anon_sym_PLUS_PLUS, mozjs_anon_sym_DASH_DASH, 2214, 2,
      mozjs_anon_sym_STAR, mozjs_anon_sym_SLASH, 2224, 2, mozjs_anon_sym_GT_GT_GT,
      mozjs_anon_sym_LT_LT, 2232, 2, mozjs_anon_sym_PLUS, mozjs_anon_sym_DASH, 2240, 2,
      mozjs_anon_sym_EQ_EQ, mozjs_anon_sym_BANG_EQ, 2242, 2, mozjs_anon_sym_EQ_EQ_EQ,
      mozjs_anon_sym_BANG_EQ_EQ, 2216, 3, mozjs_anon_sym_in, mozjs_anon_sym_LT,
      mozjs_anon_sym_GT, 2238, 3, mozjs_anon_sym_LT_EQ, mozjs_anon_sym_GT_EQ,
      mozjs_anon_sym_instanceof]"

definition mozjs_small_run_40902 :: "nat list" where
  "mozjs_small_run_40902 =
    [26, 1578, 1, mozjs_anon_sym_LPAREN, 1580, 1, mozjs_anon_sym_LBRACK, 1582, 1,
      mozjs_anon_sym_DOT, 1594, 1, mozjs_sym_optional_chain, 1959, 1, mozjs_anon_sym_of, 2142, 1,
      mozjs_anon_sym_AMP_AMP, 2144, 1, mozjs_anon_sym_PIPE_PIPE, 2146, 1, mozjs_anon_sym_GT_GT,
      2150, 1, mozjs_anon_sym_AMP, 2152, 1, mozjs_anon_sym_CARET, 2154, 1, mozjs_anon_sym_PIPE,
      2158, 1, mozjs_anon_sym_PERCENT, 2160, 1, mozjs_anon_sym_STAR_STAR, 2168, 1,
      mozjs_anon_sym_QMARK_QMARK, 2170, 1, mozjs_sym__ternary_qmark, 2252, 1, mozjs_anon_sym_in,
      639, 1, mozjs_sym_arguments, 5, 2, mozjs_sym_html_comment, mozjs_sym_comment, 1600, 2,
      mozjs_anon_sym_PLUS_PLUS, mozjs_anon_sym_DASH_DASH, 2138, 2, mozjs_anon_sym_STAR,
      mozjs_anon_sym_SLASH, 2140, 2, mozjs_anon_sym_LT, mozjs_anon_sym_GT, 2148, 2,
      mozjs_anon_sym_GT_GT_GT, mozjs_anon_sym_LT_LT, 2156, 2, mozjs_anon_sym_PLUS,
      mozjs_anon_sym_DASH, 2164, 2, mozjs_anon_sym_EQ_EQ, mozjs_anon_sym_BANG_EQ, 2166, 2,
      mozjs_anon_sym_EQ_EQ_EQ, mozjs_anon_sym_BANG_EQ_EQ, 2162, 3, mozjs_anon_sym_LT_EQ,
      mozjs_anon_sym_GT_EQ, mozjs_anon_sym_instanceof]"

definition mozjs_small_run_40991 :: "nat list" where
  "mozjs_small_run_40991 =
    [21, 93, 1, mozjs_anon_sym_AT, 103, 1, mozjs_anon_sym_STAR, 117, 1,
      mozjs_anon_sym_DOT_DOT_DOT, 125, 1, mozjs_aux_sym_method_definition_token1, 1084, 1,
      mozjs_anon_sym_DQUOTE, 1086, 1, mozjs_anon_sym_SQUOTE, 1978, 1, mozjs_anon_sym_LBRACE,
      1982, 1, mozjs_anon_sym_LBRACK, 2260, 1, mozjs_anon_sym_async, 2262, 1,
      mozjs_anon_sym_static, 1023, 1, mozjs_aux_sym_export_statement_repeat1, 1112, 1,
      mozjs_sym_decorator, 5, 2, mozjs_sym_html_comment, mozjs_sym_comment, 1986, 2,
      mozjs_sym_number, mozjs_sym_private_property_identifier, 2257, 2, mozjs_anon_sym_COMMA,
      mozjs_anon_sym_RBRACE, 2264, 2, mozjs_anon_sym_get, mozjs_anon_sym_set, 1428, 3,
      mozjs_sym_string, mozjs_sym__property_name, mozjs_sym_computed_property_name, 1734, 3,
      mozjs_sym_object_assignment_pattern, mozjs_sym_rest_pattern, mozjs_sym_pair_pattern, 1749,
      3, mozjs_sym_spread_element, mozjs_sym_method_definition, mozjs_sym_pair, 1855, 3,
      mozjs_sym_object_pattern, mozjs_sym_array_pattern, mozjs_sym__destructuring_pattern, 2255,
      4, mozjs_anon_sym_export, mozjs_anon_sym_let, mozjs_anon_sym_await, mozjs_sym_identifier]"

definition mozjs_small_run_41070 :: "nat list" where
  "mozjs_small_run_41070 =
    [25, 1578, 1, mozjs_anon_sym_LPAREN, 1580, 1, mozjs_anon_sym_LBRACK, 1582, 1,
      mozjs_anon_sym_DOT, 1594, 1, mozjs_sym_optional_chain, 1793, 1, mozjs_anon_sym_GT_GT, 1801,
      1, mozjs_anon_sym_PERCENT, 1803, 1, mozjs_anon_sym_STAR_STAR, 1809, 1,
      mozjs_anon_sym_AMP_AMP, 1811, 1, mozjs_anon_sym_PIPE_PIPE, 1813, 1, mozjs_anon_sym_AMP,
      1815, 1, mozjs_anon_sym_CARET, 1817, 1, mozjs_anon_sym_PIPE, 1823, 1,
      mozjs_anon_sym_QMARK_QMARK, 1825, 1, mozjs_sym__ternary_qmark, 2266, 1,
      mozjs_anon_sym_RBRACK, 639, 1, mozjs_sym_arguments, 5, 2, mozjs_sym_html_comment,
      mozjs_sym_comment, 1600, 2, mozjs_anon_sym_PLUS_PLUS, mozjs_anon_sym_DASH_DASH, 1787, 2,
      mozjs_anon_sym_STAR, mozjs_anon_sym_SLASH, 1795, 2, mozjs_anon_sym_GT_GT_GT,
      mozjs_anon_sym_LT_LT, 1799, 2, mozjs_anon_sym_PLUS, mozjs_anon_sym_DASH, 1819, 2,
      mozjs_anon_sym_EQ_EQ, mozjs_anon_sym_BANG_EQ, 1821, 2, mozjs_anon_sym_EQ_EQ_EQ,
      mozjs_anon_sym_BANG_EQ_EQ, 1791, 3, mozjs_anon_sym_in, mozjs_anon_sym_LT,
      mozjs_anon_sym_GT, 1805, 3, mozjs_anon_sym_LT_EQ, mozjs_anon_sym_GT_EQ,
      mozjs_anon_sym_instanceof]"

definition mozjs_small_run_41157 :: "nat list" where
  "mozjs_small_run_41157 =
    [25, 1578, 1, mozjs_anon_sym_LPAREN, 1580, 1, mozjs_anon_sym_LBRACK, 1582, 1,
      mozjs_anon_sym_DOT, 1594, 1, mozjs_sym_optional_chain, 2218, 1, mozjs_anon_sym_AMP_AMP,
      2220, 1, mozjs_anon_sym_PIPE_PIPE, 2222, 1, mozjs_anon_sym_GT_GT, 2226, 1,
      mozjs_anon_sym_AMP, 2228, 1, mozjs_anon_sym_CARET, 2230, 1, mozjs_anon_sym_PIPE, 2234, 1,
      mozjs_anon_sym_PERCENT, 2236, 1, mozjs_anon_sym_STAR_STAR, 2244, 1,
      mozjs_anon_sym_QMARK_QMARK, 2246, 1, mozjs_sym__ternary_qmark, 2268, 1,
      mozjs_anon_sym_COLON, 639, 1, mozjs_sym_arguments, 5, 2, mozjs_sym_html_comment,
      mozjs_sym_comment, 1600, 2, mozjs_anon_sym_PLUS_PLUS, mozjs_anon_sym_DASH_DASH, 2214, 2,
      mozjs_anon_sym_STAR, mozjs_anon_sym_SLASH, 2224, 2, mozjs_anon_sym_GT_GT_GT,
      mozjs_anon_sym_LT_LT, 2232, 2, mozjs_anon_sym_PLUS, mozjs_anon_sym_DASH, 2240, 2,
      mozjs_anon_sym_EQ_EQ, mozjs_anon_sym_BANG_EQ, 2242, 2, mozjs_anon_sym_EQ_EQ_EQ,
      mozjs_anon_sym_BANG_EQ_EQ, 2216, 3, mozjs_anon_sym_in, mozjs_anon_sym_LT,
      mozjs_anon_sym_GT, 2238, 3, mozjs_anon_sym_LT_EQ, mozjs_anon_sym_GT_EQ,
      mozjs_anon_sym_instanceof]"

definition mozjs_small_run_41244 :: "nat list" where
  "mozjs_small_run_41244 =
    [25, 1578, 1, mozjs_anon_sym_LPAREN, 1580, 1, mozjs_anon_sym_LBRACK, 1582, 1,
      mozjs_anon_sym_DOT, 1594, 1, mozjs_sym_optional_chain, 2218, 1, mozjs_anon_sym_AMP_AMP,
      2220, 1, mozjs_anon_sym_PIPE_PIPE, 2222, 1, mozjs_anon_sym_GT_GT, 2226, 1,
      mozjs_anon_sym_AMP, 2228, 1, mozjs_anon_sym_CARET, 2230, 1, mozjs_anon_sym_PIPE, 2234, 1,
      mozjs_anon_sym_PERCENT, 2236, 1, mozjs_anon_sym_STAR_STAR, 2244, 1,
      mozjs_anon_sym_QMARK_QMARK, 2246, 1, mozjs_sym__ternary_qmark, 2270, 1,
      mozjs_anon_sym_COLON, 639, 1, mozjs_sym_arguments, 5, 2, mozjs_sym_html_comment,
      mozjs_sym_comment, 1600, 2, mozjs_anon_sym_PLUS_PLUS, mozjs_anon_sym_DASH_DASH, 2214, 2,
      mozjs_anon_sym_STAR, mozjs_anon_sym_SLASH, 2224, 2, mozjs_anon_sym_GT_GT_GT,
      mozjs_anon_sym_LT_LT, 2232, 2, mozjs_anon_sym_PLUS, mozjs_anon_sym_DASH, 2240, 2,
      mozjs_anon_sym_EQ_EQ, mozjs_anon_sym_BANG_EQ, 2242, 2, mozjs_anon_sym_EQ_EQ_EQ,
      mozjs_anon_sym_BANG_EQ_EQ, 2216, 3, mozjs_anon_sym_in, mozjs_anon_sym_LT,
      mozjs_anon_sym_GT, 2238, 3, mozjs_anon_sym_LT_EQ, mozjs_anon_sym_GT_EQ,
      mozjs_anon_sym_instanceof]"

definition mozjs_small_run_41331 :: "nat list" where
  "mozjs_small_run_41331 =
    [25, 1578, 1, mozjs_anon_sym_LPAREN, 1580, 1, mozjs_anon_sym_LBRACK, 1582, 1,
      mozjs_anon_sym_DOT, 1594, 1, mozjs_sym_optional_chain, 2218, 1, mozjs_anon_sym_AMP_AMP,
      2220, 1, mozjs_anon_sym_PIPE_PIPE, 2222, 1, mozjs_anon_sym_GT_GT, 2226, 1,
      mozjs_anon_sym_AMP, 2228, 1, mozjs_anon_sym_CARET, 2230, 1, mozjs_anon_sym_PIPE, 2234, 1,
      mozjs_anon_sym_PERCENT, 2236, 1, mozjs_anon_sym_STAR_STAR, 2244, 1,
      mozjs_anon_sym_QMARK_QMARK, 2246, 1, mozjs_sym__ternary_qmark, 2272, 1,
      mozjs_anon_sym_COLON, 639, 1, mozjs_sym_arguments, 5, 2, mozjs_sym_html_comment,
      mozjs_sym_comment, 1600, 2, mozjs_anon_sym_PLUS_PLUS, mozjs_anon_sym_DASH_DASH, 2214, 2,
      mozjs_anon_sym_STAR, mozjs_anon_sym_SLASH, 2224, 2, mozjs_anon_sym_GT_GT_GT,
      mozjs_anon_sym_LT_LT, 2232, 2, mozjs_anon_sym_PLUS, mozjs_anon_sym_DASH, 2240, 2,
      mozjs_anon_sym_EQ_EQ, mozjs_anon_sym_BANG_EQ, 2242, 2, mozjs_anon_sym_EQ_EQ_EQ,
      mozjs_anon_sym_BANG_EQ_EQ, 2216, 3, mozjs_anon_sym_in, mozjs_anon_sym_LT,
      mozjs_anon_sym_GT, 2238, 3, mozjs_anon_sym_LT_EQ, mozjs_anon_sym_GT_EQ,
      mozjs_anon_sym_instanceof]"

definition mozjs_small_run_41418 :: "nat list" where
  "mozjs_small_run_41418 =
    [25, 1578, 1, mozjs_anon_sym_LPAREN, 1580, 1, mozjs_anon_sym_LBRACK, 1582, 1,
      mozjs_anon_sym_DOT, 1594, 1, mozjs_sym_optional_chain, 1793, 1, mozjs_anon_sym_GT_GT, 1801,
      1, mozjs_anon_sym_PERCENT, 1803, 1, mozjs_anon_sym_STAR_STAR, 1809, 1,
      mozjs_anon_sym_AMP_AMP, 1811, 1, mozjs_anon_sym_PIPE_PIPE, 1813, 1, mozjs_anon_sym_AMP,
      1815, 1, mozjs_anon_sym_CARET, 1817, 1, mozjs_anon_sym_PIPE, 1823, 1,
      mozjs_anon_sym_QMARK_QMARK, 1825, 1, mozjs_sym__ternary_qmark, 2274, 1,
      mozjs_anon_sym_RBRACK, 639, 1, mozjs_sym_arguments, 5, 2, mozjs_sym_html_comment,
      mozjs_sym_comment, 1600, 2, mozjs_anon_sym_PLUS_PLUS, mozjs_anon_sym_DASH_DASH, 1787, 2,
      mozjs_anon_sym_STAR, mozjs_anon_sym_SLASH, 1795, 2, mozjs_anon_sym_GT_GT_GT,
      mozjs_anon_sym_LT_LT, 1799, 2, mozjs_anon_sym_PLUS, mozjs_anon_sym_DASH, 1819, 2,
      mozjs_anon_sym_EQ_EQ, mozjs_anon_sym_BANG_EQ, 1821, 2, mozjs_anon_sym_EQ_EQ_EQ,
      mozjs_anon_sym_BANG_EQ_EQ, 1791, 3, mozjs_anon_sym_in, mozjs_anon_sym_LT,
      mozjs_anon_sym_GT, 1805, 3, mozjs_anon_sym_LT_EQ, mozjs_anon_sym_GT_EQ,
      mozjs_anon_sym_instanceof]"

definition mozjs_small_run_41505 :: "nat list" where
  "mozjs_small_run_41505 =
    [25, 1578, 1, mozjs_anon_sym_LPAREN, 1580, 1, mozjs_anon_sym_LBRACK, 1582, 1,
      mozjs_anon_sym_DOT, 1594, 1, mozjs_sym_optional_chain, 2176, 1, mozjs_anon_sym_GT_GT, 2180,
      1, mozjs_anon_sym_AMP, 2184, 1, mozjs_anon_sym_PERCENT, 2186, 1, mozjs_anon_sym_STAR_STAR,
      2194, 1, mozjs_anon_sym_CARET, 2196, 1, mozjs_anon_sym_AMP_AMP, 2198, 1,
      mozjs_anon_sym_PIPE_PIPE, 2200, 1, mozjs_anon_sym_PIPE, 2202, 1,
      mozjs_anon_sym_QMARK_QMARK, 2204, 1, mozjs_sym__ternary_qmark, 2276, 1,
      mozjs_anon_sym_LBRACE, 639, 1, mozjs_sym_arguments, 5, 2, mozjs_sym_html_comment,
      mozjs_sym_comment, 1600, 2, mozjs_anon_sym_PLUS_PLUS, mozjs_anon_sym_DASH_DASH, 2172, 2,
      mozjs_anon_sym_STAR, mozjs_anon_sym_SLASH, 2178, 2, mozjs_anon_sym_GT_GT_GT,
      mozjs_anon_sym_LT_LT, 2182, 2, mozjs_anon_sym_PLUS, mozjs_anon_sym_DASH, 2190, 2,
      mozjs_anon_sym_EQ_EQ, mozjs_anon_sym_BANG_EQ, 2192, 2, mozjs_anon_sym_EQ_EQ_EQ,
      mozjs_anon_sym_BANG_EQ_EQ, 2174, 3, mozjs_anon_sym_in, mozjs_anon_sym_LT,
      mozjs_anon_sym_GT, 2188, 3, mozjs_anon_sym_LT_EQ, mozjs_anon_sym_GT_EQ,
      mozjs_anon_sym_instanceof]"

definition mozjs_small_run_41592 :: "nat list" where
  "mozjs_small_run_41592 =
    [25, 1578, 1, mozjs_anon_sym_LPAREN, 1580, 1, mozjs_anon_sym_LBRACK, 1582, 1,
      mozjs_anon_sym_DOT, 1594, 1, mozjs_sym_optional_chain, 2218, 1, mozjs_anon_sym_AMP_AMP,
      2220, 1, mozjs_anon_sym_PIPE_PIPE, 2222, 1, mozjs_anon_sym_GT_GT, 2226, 1,
      mozjs_anon_sym_AMP, 2228, 1, mozjs_anon_sym_CARET, 2230, 1, mozjs_anon_sym_PIPE, 2234, 1,
      mozjs_anon_sym_PERCENT, 2236, 1, mozjs_anon_sym_STAR_STAR, 2244, 1,
      mozjs_anon_sym_QMARK_QMARK, 2246, 1, mozjs_sym__ternary_qmark, 2278, 1,
      mozjs_anon_sym_COLON, 639, 1, mozjs_sym_arguments, 5, 2, mozjs_sym_html_comment,
      mozjs_sym_comment, 1600, 2, mozjs_anon_sym_PLUS_PLUS, mozjs_anon_sym_DASH_DASH, 2214, 2,
      mozjs_anon_sym_STAR, mozjs_anon_sym_SLASH, 2224, 2, mozjs_anon_sym_GT_GT_GT,
      mozjs_anon_sym_LT_LT, 2232, 2, mozjs_anon_sym_PLUS, mozjs_anon_sym_DASH, 2240, 2,
      mozjs_anon_sym_EQ_EQ, mozjs_anon_sym_BANG_EQ, 2242, 2, mozjs_anon_sym_EQ_EQ_EQ,
      mozjs_anon_sym_BANG_EQ_EQ, 2216, 3, mozjs_anon_sym_in, mozjs_anon_sym_LT,
      mozjs_anon_sym_GT, 2238, 3, mozjs_anon_sym_LT_EQ, mozjs_anon_sym_GT_EQ,
      mozjs_anon_sym_instanceof]"

definition mozjs_small_run_41679 :: "nat list" where
  "mozjs_small_run_41679 =
    [24, 1827, 1, mozjs_anon_sym_LPAREN, 1829, 1, mozjs_anon_sym_LBRACK, 1831, 1,
      mozjs_anon_sym_DOT, 1845, 1, mozjs_sym_optional_chain, 2218, 1, mozjs_anon_sym_AMP_AMP,
      2220, 1, mozjs_anon_sym_PIPE_PIPE, 2222, 1, mozjs_anon_sym_GT_GT, 2226, 1,
      mozjs_anon_sym_AMP, 2228, 1, mozjs_anon_sym_CARET, 2230, 1, mozjs_anon_sym_PIPE, 2234, 1,
      mozjs_anon_sym_PERCENT, 2236, 1, mozjs_anon_sym_STAR_STAR, 2244, 1,
      mozjs_anon_sym_QMARK_QMARK, 2246, 1, mozjs_sym__ternary_qmark, 804, 1, mozjs_sym_arguments,
      5, 2, mozjs_sym_html_comment, mozjs_sym_comment, 1600, 2, mozjs_anon_sym_PLUS_PLUS,
      mozjs_anon_sym_DASH_DASH, 2214, 2, mozjs_anon_sym_STAR, mozjs_anon_sym_SLASH, 2224, 2,
      mozjs_anon_sym_GT_GT_GT, mozjs_anon_sym_LT_LT, 2232, 2, mozjs_anon_sym_PLUS,
      mozjs_anon_sym_DASH, 2240, 2, mozjs_anon_sym_EQ_EQ, mozjs_anon_sym_BANG_EQ, 2242, 2,
      mozjs_anon_sym_EQ_EQ_EQ, mozjs_anon_sym_BANG_EQ_EQ, 2216, 3, mozjs_anon_sym_in,
      mozjs_anon_sym_LT, mozjs_anon_sym_GT, 2238, 3, mozjs_anon_sym_LT_EQ, mozjs_anon_sym_GT_EQ,
      mozjs_anon_sym_instanceof]"

definition mozjs_small_run_41763 :: "nat list" where
  "mozjs_small_run_41763 =
    [24, 1578, 1, mozjs_anon_sym_LPAREN, 1580, 1, mozjs_anon_sym_LBRACK, 1582, 1,
      mozjs_anon_sym_DOT, 1594, 1, mozjs_sym_optional_chain, 2218, 1, mozjs_anon_sym_AMP_AMP,
      2220, 1, mozjs_anon_sym_PIPE_PIPE, 2222, 1, mozjs_anon_sym_GT_GT, 2226, 1,
      mozjs_anon_sym_AMP, 2228, 1, mozjs_anon_sym_CARET, 2230, 1, mozjs_anon_sym_PIPE, 2234, 1,
      mozjs_anon_sym_PERCENT, 2236, 1, mozjs_anon_sym_STAR_STAR, 2244, 1,
      mozjs_anon_sym_QMARK_QMARK, 2246, 1, mozjs_sym__ternary_qmark, 639, 1, mozjs_sym_arguments,
      5, 2, mozjs_sym_html_comment, mozjs_sym_comment, 1600, 2, mozjs_anon_sym_PLUS_PLUS,
      mozjs_anon_sym_DASH_DASH, 2214, 2, mozjs_anon_sym_STAR, mozjs_anon_sym_SLASH, 2224, 2,
      mozjs_anon_sym_GT_GT_GT, mozjs_anon_sym_LT_LT, 2232, 2, mozjs_anon_sym_PLUS,
      mozjs_anon_sym_DASH, 2240, 2, mozjs_anon_sym_EQ_EQ, mozjs_anon_sym_BANG_EQ, 2242, 2,
      mozjs_anon_sym_EQ_EQ_EQ, mozjs_anon_sym_BANG_EQ_EQ, 2216, 3, mozjs_anon_sym_in,
      mozjs_anon_sym_LT, mozjs_anon_sym_GT, 2238, 3, mozjs_anon_sym_LT_EQ, mozjs_anon_sym_GT_EQ,
      mozjs_anon_sym_instanceof]"

definition mozjs_small_run_41847 :: "nat list" where
  "mozjs_small_run_41847 =
    [20, 93, 1, mozjs_anon_sym_AT, 103, 1, mozjs_anon_sym_STAR, 125, 1,
      mozjs_aux_sym_method_definition_token1, 923, 1, mozjs_anon_sym_DOT_DOT_DOT, 1084, 1,
      mozjs_anon_sym_DQUOTE, 1086, 1, mozjs_anon_sym_SQUOTE, 2282, 1, mozjs_anon_sym_COMMA, 2284,
      1, mozjs_anon_sym_RBRACE, 2286, 1, mozjs_anon_sym_LBRACK, 2288, 1, mozjs_anon_sym_async,
      2292, 1, mozjs_anon_sym_static, 1023, 1, mozjs_aux_sym_export_statement_repeat1, 1112, 1,
      mozjs_sym_decorator, 1426, 1, mozjs_aux_sym_object_repeat1, 5, 2, mozjs_sym_html_comment,
      mozjs_sym_comment, 2290, 2, mozjs_sym_number, mozjs_sym_private_property_identifier, 2294,
      2, mozjs_anon_sym_get, mozjs_anon_sym_set, 1424, 3, mozjs_sym_spread_element,
      mozjs_sym_method_definition, mozjs_sym_pair, 1477, 3, mozjs_sym_string,
      mozjs_sym__property_name, mozjs_sym_computed_property_name, 2280, 4, mozjs_anon_sym_export,
      mozjs_anon_sym_let, mozjs_anon_sym_await, mozjs_sym_identifier]"

definition mozjs_small_run_41918 :: "nat list" where
  "mozjs_small_run_41918 =
    [21, 93, 1, mozjs_anon_sym_AT, 2298, 1, mozjs_anon_sym_STAR, 2300, 1, mozjs_anon_sym_RBRACE,
      2302, 1, mozjs_anon_sym_SEMI, 2304, 1, mozjs_anon_sym_LBRACK, 2306, 1,
      mozjs_anon_sym_DQUOTE, 2308, 1, mozjs_anon_sym_SQUOTE, 2310, 1, mozjs_anon_sym_async, 2314,
      1, mozjs_anon_sym_static, 2316, 1, mozjs_aux_sym_method_definition_token1, 991, 1,
      mozjs_aux_sym_class_body_repeat1, 1030, 1, mozjs_aux_sym_export_statement_repeat1, 1088, 1,
      mozjs_sym_class_static_block, 1089, 1, mozjs_sym_method_definition, 1112, 1,
      mozjs_sym_decorator, 1515, 1, mozjs_sym_field_definition, 5, 2, mozjs_sym_html_comment,
      mozjs_sym_comment, 2312, 2, mozjs_sym_number, mozjs_sym_private_property_identifier, 2318,
      2, mozjs_anon_sym_get, mozjs_anon_sym_set, 1235, 3, mozjs_sym_string,
      mozjs_sym__property_name, mozjs_sym_computed_property_name, 2296, 4, mozjs_anon_sym_export,
      mozjs_anon_sym_let, mozjs_anon_sym_await, mozjs_sym_identifier]"

definition mozjs_small_run_41990 :: "nat list" where
  "mozjs_small_run_41990 =
    [21, 93, 1, mozjs_anon_sym_AT, 2298, 1, mozjs_anon_sym_STAR, 2302, 1, mozjs_anon_sym_SEMI,
      2304, 1, mozjs_anon_sym_LBRACK, 2306, 1, mozjs_anon_sym_DQUOTE, 2308, 1,
      mozjs_anon_sym_SQUOTE, 2310, 1, mozjs_anon_sym_async, 2314, 1, mozjs_anon_sym_static, 2316,
      1, mozjs_aux_sym_method_definition_token1, 2320, 1, mozjs_anon_sym_RBRACE, 991, 1,
      mozjs_aux_sym_class_body_repeat1, 1030, 1, mozjs_aux_sym_export_statement_repeat1, 1088, 1,
      mozjs_sym_class_static_block, 1089, 1, mozjs_sym_method_definition, 1112, 1,
      mozjs_sym_decorator, 1515, 1, mozjs_sym_field_definition, 5, 2, mozjs_sym_html_comment,
      mozjs_sym_comment, 2312, 2, mozjs_sym_number, mozjs_sym_private_property_identifier, 2318,
      2, mozjs_anon_sym_get, mozjs_anon_sym_set, 1235, 3, mozjs_sym_string,
      mozjs_sym__property_name, mozjs_sym_computed_property_name, 2296, 4, mozjs_anon_sym_export,
      mozjs_anon_sym_let, mozjs_anon_sym_await, mozjs_sym_identifier]"

definition mozjs_small_run_42062 :: "nat list" where
  "mozjs_small_run_42062 =
    [14, 895, 1, mozjs_anon_sym_DOT_DOT_DOT, 1084, 1, mozjs_anon_sym_DQUOTE, 1086, 1,
      mozjs_anon_sym_SQUOTE, 1978, 1, mozjs_anon_sym_LBRACE, 1982, 1, mozjs_anon_sym_LBRACK,
      2324, 1, mozjs_anon_sym_COMMA, 2326, 1, mozjs_anon_sym_RBRACE, 1432, 1,
      mozjs_aux_sym_object_pattern_repeat1, 5, 2, mozjs_sym_html_comment, mozjs_sym_comment,
      2328, 2, mozjs_sym_number, mozjs_sym_private_property_identifier, 1423, 3,
      mozjs_sym_object_assignment_pattern, mozjs_sym_rest_pattern, mozjs_sym_pair_pattern, 1781,
      3, mozjs_sym_string, mozjs_sym__property_name, mozjs_sym_computed_property_name, 1855, 3,
      mozjs_sym_object_pattern, mozjs_sym_array_pattern, mozjs_sym__destructuring_pattern, 2322,
      8, mozjs_anon_sym_export, mozjs_anon_sym_let, mozjs_anon_sym_await, mozjs_anon_sym_async,
      mozjs_sym_identifier, mozjs_anon_sym_static, mozjs_anon_sym_get, mozjs_anon_sym_set]"

definition mozjs_small_run_42120 :: "nat list" where
  "mozjs_small_run_42120 =
    [21, 93, 1, mozjs_anon_sym_AT, 2298, 1, mozjs_anon_sym_STAR, 2304, 1, mozjs_anon_sym_LBRACK,
      2306, 1, mozjs_anon_sym_DQUOTE, 2308, 1, mozjs_anon_sym_SQUOTE, 2310, 1,
      mozjs_anon_sym_async, 2314, 1, mozjs_anon_sym_static, 2316, 1,
      mozjs_aux_sym_method_definition_token1, 2330, 1, mozjs_anon_sym_RBRACE, 2332, 1,
      mozjs_anon_sym_SEMI, 988, 1, mozjs_aux_sym_class_body_repeat1, 1030, 1,
      mozjs_aux_sym_export_statement_repeat1, 1088, 1, mozjs_sym_class_static_block, 1089, 1,
      mozjs_sym_method_definition, 1112, 1, mozjs_sym_decorator, 1515, 1,
      mozjs_sym_field_definition, 5, 2, mozjs_sym_html_comment, mozjs_sym_comment, 2312, 2,
      mozjs_sym_number, mozjs_sym_private_property_identifier, 2318, 2, mozjs_anon_sym_get,
      mozjs_anon_sym_set, 1235, 3, mozjs_sym_string, mozjs_sym__property_name,
      mozjs_sym_computed_property_name, 2296, 4, mozjs_anon_sym_export, mozjs_anon_sym_let,
      mozjs_anon_sym_await, mozjs_sym_identifier]"

definition mozjs_small_run_42192 :: "nat list" where
  "mozjs_small_run_42192 =
    [21, 2337, 1, mozjs_anon_sym_STAR, 2340, 1, mozjs_anon_sym_RBRACE, 2342, 1,
      mozjs_anon_sym_SEMI, 2345, 1, mozjs_anon_sym_LBRACK, 2348, 1, mozjs_anon_sym_DQUOTE, 2351,
      1, mozjs_anon_sym_SQUOTE, 2354, 1, mozjs_anon_sym_async, 2360, 1, mozjs_anon_sym_AT, 2363,
      1, mozjs_anon_sym_static, 2366, 1, mozjs_aux_sym_method_definition_token1, 991, 1,
      mozjs_aux_sym_class_body_repeat1, 1030, 1, mozjs_aux_sym_export_statement_repeat1, 1088, 1,
      mozjs_sym_class_static_block, 1089, 1, mozjs_sym_method_definition, 1112, 1,
      mozjs_sym_decorator, 1515, 1, mozjs_sym_field_definition, 5, 2, mozjs_sym_html_comment,
      mozjs_sym_comment, 2357, 2, mozjs_sym_number, mozjs_sym_private_property_identifier, 2369,
      2, mozjs_anon_sym_get, mozjs_anon_sym_set, 1235, 3, mozjs_sym_string,
      mozjs_sym__property_name, mozjs_sym_computed_property_name, 2334, 4, mozjs_anon_sym_export,
      mozjs_anon_sym_let, mozjs_anon_sym_await, mozjs_sym_identifier]"

definition mozjs_small_run_42264 :: "nat list" where
  "mozjs_small_run_42264 =
    [21, 93, 1, mozjs_anon_sym_AT, 2298, 1, mozjs_anon_sym_STAR, 2304, 1, mozjs_anon_sym_LBRACK,
      2306, 1, mozjs_anon_sym_DQUOTE, 2308, 1, mozjs_anon_sym_SQUOTE, 2310, 1,
      mozjs_anon_sym_async, 2314, 1, mozjs_anon_sym_static, 2316, 1,
      mozjs_aux_sym_method_definition_token1, 2372, 1, mozjs_anon_sym_RBRACE, 2374, 1,
      mozjs_anon_sym_SEMI, 993, 1, mozjs_aux_sym_class_body_repeat1, 1030, 1,
      mozjs_aux_sym_export_statement_repeat1, 1088, 1, mozjs_sym_class_static_block, 1089, 1,
      mozjs_sym_method_definition, 1112, 1, mozjs_sym_decorator, 1515, 1,
      mozjs_sym_field_definition, 5, 2, mozjs_sym_html_comment, mozjs_sym_comment, 2312, 2,
      mozjs_sym_number, mozjs_sym_private_property_identifier, 2318, 2, mozjs_anon_sym_get,
      mozjs_anon_sym_set, 1235, 3, mozjs_sym_string, mozjs_sym__property_name,
      mozjs_sym_computed_property_name, 2296, 4, mozjs_anon_sym_export, mozjs_anon_sym_let,
      mozjs_anon_sym_await, mozjs_sym_identifier]"

definition mozjs_small_run_42336 :: "nat list" where
  "mozjs_small_run_42336 =
    [21, 93, 1, mozjs_anon_sym_AT, 2298, 1, mozjs_anon_sym_STAR, 2302, 1, mozjs_anon_sym_SEMI,
      2304, 1, mozjs_anon_sym_LBRACK, 2306, 1, mozjs_anon_sym_DQUOTE, 2308, 1,
      mozjs_anon_sym_SQUOTE, 2310, 1, mozjs_anon_sym_async, 2314, 1, mozjs_anon_sym_static, 2316,
      1, mozjs_aux_sym_method_definition_token1, 2376, 1, mozjs_anon_sym_RBRACE, 991, 1,
      mozjs_aux_sym_class_body_repeat1, 1030, 1, mozjs_aux_sym_export_statement_repeat1, 1088, 1,
      mozjs_sym_class_static_block, 1089, 1, mozjs_sym_method_definition, 1112, 1,
      mozjs_sym_decorator, 1515, 1, mozjs_sym_field_definition, 5, 2, mozjs_sym_html_comment,
      mozjs_sym_comment, 2312, 2, mozjs_sym_number, mozjs_sym_private_property_identifier, 2318,
      2, mozjs_anon_sym_get, mozjs_anon_sym_set, 1235, 3, mozjs_sym_string,
      mozjs_sym__property_name, mozjs_sym_computed_property_name, 2296, 4, mozjs_anon_sym_export,
      mozjs_anon_sym_let, mozjs_anon_sym_await, mozjs_sym_identifier]"

definition mozjs_small_run_42408 :: "nat list" where
  "mozjs_small_run_42408 =
    [21, 93, 1, mozjs_anon_sym_AT, 2298, 1, mozjs_anon_sym_STAR, 2304, 1, mozjs_anon_sym_LBRACK,
      2306, 1, mozjs_anon_sym_DQUOTE, 2308, 1, mozjs_anon_sym_SQUOTE, 2310, 1,
      mozjs_anon_sym_async, 2314, 1, mozjs_anon_sym_static, 2316, 1,
      mozjs_aux_sym_method_definition_token1, 2378, 1, mozjs_anon_sym_RBRACE, 2380, 1,
      mozjs_anon_sym_SEMI, 987, 1, mozjs_aux_sym_class_body_repeat1, 1030, 1,
      mozjs_aux_sym_export_statement_repeat1, 1088, 1, mozjs_sym_class_static_block, 1089, 1,
      mozjs_sym_method_definition, 1112, 1, mozjs_sym_decorator, 1515, 1,
      mozjs_sym_field_definition, 5, 2, mozjs_sym_html_comment, mozjs_sym_comment, 2312, 2,
      mozjs_sym_number, mozjs_sym_private_property_identifier, 2318, 2, mozjs_anon_sym_get,
      mozjs_anon_sym_set, 1235, 3, mozjs_sym_string, mozjs_sym__property_name,
      mozjs_sym_computed_property_name, 2296, 4, mozjs_anon_sym_export, mozjs_anon_sym_let,
      mozjs_anon_sym_await, mozjs_sym_identifier]"

definition mozjs_small_run_42480 :: "nat list" where
  "mozjs_small_run_42480 =
    [14, 895, 1, mozjs_anon_sym_DOT_DOT_DOT, 1084, 1, mozjs_anon_sym_DQUOTE, 1086, 1,
      mozjs_anon_sym_SQUOTE, 1978, 1, mozjs_anon_sym_LBRACE, 1982, 1, mozjs_anon_sym_LBRACK,
      2324, 1, mozjs_anon_sym_COMMA, 2384, 1, mozjs_anon_sym_RBRACE, 1433, 1,
      mozjs_aux_sym_object_pattern_repeat1, 5, 2, mozjs_sym_html_comment, mozjs_sym_comment,
      2328, 2, mozjs_sym_number, mozjs_sym_private_property_identifier, 1420, 3,
      mozjs_sym_object_assignment_pattern, mozjs_sym_rest_pattern, mozjs_sym_pair_pattern, 1781,
      3, mozjs_sym_string, mozjs_sym__property_name, mozjs_sym_computed_property_name, 1855, 3,
      mozjs_sym_object_pattern, mozjs_sym_array_pattern, mozjs_sym__destructuring_pattern, 2382,
      8, mozjs_anon_sym_export, mozjs_anon_sym_let, mozjs_anon_sym_await, mozjs_anon_sym_async,
      mozjs_sym_identifier, mozjs_anon_sym_static, mozjs_anon_sym_get, mozjs_anon_sym_set]"

definition mozjs_small_run_42538 :: "nat list" where
  "mozjs_small_run_42538 =
    [18, 93, 1, mozjs_anon_sym_AT, 103, 1, mozjs_anon_sym_STAR, 125, 1,
      mozjs_aux_sym_method_definition_token1, 923, 1, mozjs_anon_sym_DOT_DOT_DOT, 1084, 1,
      mozjs_anon_sym_DQUOTE, 1086, 1, mozjs_anon_sym_SQUOTE, 2286, 1, mozjs_anon_sym_LBRACK,
      2390, 1, mozjs_anon_sym_async, 2392, 1, mozjs_anon_sym_static, 1023, 1,
      mozjs_aux_sym_export_statement_repeat1, 1112, 1, mozjs_sym_decorator, 5, 2,
      mozjs_sym_html_comment, mozjs_sym_comment, 2290, 2, mozjs_sym_number,
      mozjs_sym_private_property_identifier, 2388, 2, mozjs_anon_sym_COMMA,
      mozjs_anon_sym_RBRACE, 2394, 2, mozjs_anon_sym_get, mozjs_anon_sym_set, 1477, 3,
      mozjs_sym_string, mozjs_sym__property_name, mozjs_sym_computed_property_name, 1749, 3,
      mozjs_sym_spread_element, mozjs_sym_method_definition, mozjs_sym_pair, 2386, 4,
      mozjs_anon_sym_export, mozjs_anon_sym_let, mozjs_anon_sym_await, mozjs_sym_identifier]"

definition mozjs_small_run_42604 :: "nat list" where
  "mozjs_small_run_42604 =
    [12, 895, 1, mozjs_anon_sym_DOT_DOT_DOT, 1084, 1, mozjs_anon_sym_DQUOTE, 1086, 1,
      mozjs_anon_sym_SQUOTE, 1978, 1, mozjs_anon_sym_LBRACE, 1982, 1, mozjs_anon_sym_LBRACK, 5,
      2, mozjs_sym_html_comment, mozjs_sym_comment, 2328, 2, mozjs_sym_number,
      mozjs_sym_private_property_identifier, 2398, 2, mozjs_anon_sym_COMMA,
      mozjs_anon_sym_RBRACE, 1734, 3, mozjs_sym_object_assignment_pattern,
      mozjs_sym_rest_pattern, mozjs_sym_pair_pattern, 1781, 3, mozjs_sym_string,
      mozjs_sym__property_name, mozjs_sym_computed_property_name, 1855, 3,
      mozjs_sym_object_pattern, mozjs_sym_array_pattern, mozjs_sym__destructuring_pattern, 2396,
      8, mozjs_anon_sym_export, mozjs_anon_sym_let, mozjs_anon_sym_await, mozjs_anon_sym_async,
      mozjs_sym_identifier, mozjs_anon_sym_static, mozjs_anon_sym_get, mozjs_anon_sym_set]"

definition mozjs_small_run_42657 :: "nat list" where
  "mozjs_small_run_42657 =
    [15, 105, 1, mozjs_anon_sym_COMMA, 1084, 1, mozjs_anon_sym_DQUOTE, 1086, 1,
      mozjs_anon_sym_SQUOTE, 2286, 1, mozjs_anon_sym_LBRACK, 2400, 1, mozjs_anon_sym_STAR, 2402,
      1, mozjs_anon_sym_RBRACE, 2406, 1, mozjs_anon_sym_EQ, 1414, 1,
      mozjs_aux_sym_object_pattern_repeat1, 1442, 1, mozjs_aux_sym_object_repeat1, 5, 2,
      mozjs_sym_html_comment, mozjs_sym_comment, 1090, 2, mozjs_sym_number,
      mozjs_sym_private_property_identifier, 1098, 2, mozjs_anon_sym_get, mozjs_anon_sym_set,
      2404, 2, mozjs_anon_sym_LPAREN, mozjs_anon_sym_COLON, 1545, 3, mozjs_sym_string,
      mozjs_sym__property_name, mozjs_sym_computed_property_name, 1094, 6, mozjs_anon_sym_export,
      mozjs_anon_sym_let, mozjs_anon_sym_await, mozjs_anon_sym_async, mozjs_sym_identifier,
      mozjs_anon_sym_static]"

definition mozjs_small_run_42714 :: "nat list" where
  "mozjs_small_run_42714 =
    [15, 105, 1, mozjs_anon_sym_COMMA, 374, 1, mozjs_anon_sym_RBRACE, 1084, 1,
      mozjs_anon_sym_DQUOTE, 1086, 1, mozjs_anon_sym_SQUOTE, 2286, 1, mozjs_anon_sym_LBRACK,
      2400, 1, mozjs_anon_sym_STAR, 2406, 1, mozjs_anon_sym_EQ, 1414, 1,
      mozjs_aux_sym_object_pattern_repeat1, 1442, 1, mozjs_aux_sym_object_repeat1, 5, 2,
      mozjs_sym_html_comment, mozjs_sym_comment, 1090, 2, mozjs_sym_number,
      mozjs_sym_private_property_identifier, 1098, 2, mozjs_anon_sym_get, mozjs_anon_sym_set,
      2404, 2, mozjs_anon_sym_LPAREN, mozjs_anon_sym_COLON, 1545, 3, mozjs_sym_string,
      mozjs_sym__property_name, mozjs_sym_computed_property_name, 1094, 6, mozjs_anon_sym_export,
      mozjs_anon_sym_let, mozjs_anon_sym_await, mozjs_anon_sym_async, mozjs_sym_identifier,
      mozjs_anon_sym_static]"

definition mozjs_small_run_42771 :: "nat list" where
  "mozjs_small_run_42771 =
    [16, 105, 1, mozjs_anon_sym_COMMA, 374, 1, mozjs_anon_sym_RBRACE, 1084, 1,
      mozjs_anon_sym_DQUOTE, 1086, 1, mozjs_anon_sym_SQUOTE, 1096, 1, mozjs_anon_sym_async, 2286,
      1, mozjs_anon_sym_LBRACK, 2400, 1, mozjs_anon_sym_STAR, 2406, 1, mozjs_anon_sym_EQ, 1414,
      1, mozjs_aux_sym_object_pattern_repeat1, 1442, 1, mozjs_aux_sym_object_repeat1, 5, 2,
      mozjs_sym_html_comment, mozjs_sym_comment, 1090, 2, mozjs_sym_number,
      mozjs_sym_private_property_identifier, 1098, 2, mozjs_anon_sym_get, mozjs_anon_sym_set,
      2404, 2, mozjs_anon_sym_LPAREN, mozjs_anon_sym_COLON, 1545, 3, mozjs_sym_string,
      mozjs_sym__property_name, mozjs_sym_computed_property_name, 1094, 5, mozjs_anon_sym_export,
      mozjs_anon_sym_let, mozjs_anon_sym_await, mozjs_sym_identifier, mozjs_anon_sym_static]"

definition mozjs_small_run_42830 :: "nat list" where
  "mozjs_small_run_42830 =
    [15, 105, 1, mozjs_anon_sym_COMMA, 313, 1, mozjs_anon_sym_RBRACE, 1084, 1,
      mozjs_anon_sym_DQUOTE, 1086, 1, mozjs_anon_sym_SQUOTE, 2286, 1, mozjs_anon_sym_LBRACK,
      2400, 1, mozjs_anon_sym_STAR, 2406, 1, mozjs_anon_sym_EQ, 1411, 1,
      mozjs_aux_sym_object_repeat1, 1414, 1, mozjs_aux_sym_object_pattern_repeat1, 5, 2,
      mozjs_sym_html_comment, mozjs_sym_comment, 1090, 2, mozjs_sym_number,
      mozjs_sym_private_property_identifier, 1098, 2, mozjs_anon_sym_get, mozjs_anon_sym_set,
      2404, 2, mozjs_anon_sym_LPAREN, mozjs_anon_sym_COLON, 1545, 3, mozjs_sym_string,
      mozjs_sym__property_name, mozjs_sym_computed_property_name, 1094, 6, mozjs_anon_sym_export,
      mozjs_anon_sym_let, mozjs_anon_sym_await, mozjs_anon_sym_async, mozjs_sym_identifier,
      mozjs_anon_sym_static]"

definition mozjs_small_run_42887 :: "nat list" where
  "mozjs_small_run_42887 =
    [16, 105, 1, mozjs_anon_sym_COMMA, 313, 1, mozjs_anon_sym_RBRACE, 1084, 1,
      mozjs_anon_sym_DQUOTE, 1086, 1, mozjs_anon_sym_SQUOTE, 1096, 1, mozjs_anon_sym_async, 2286,
      1, mozjs_anon_sym_LBRACK, 2400, 1, mozjs_anon_sym_STAR, 2406, 1, mozjs_anon_sym_EQ, 1411,
      1, mozjs_aux_sym_object_repeat1, 1414, 1, mozjs_aux_sym_object_pattern_repeat1, 5, 2,
      mozjs_sym_html_comment, mozjs_sym_comment, 1090, 2, mozjs_sym_number,
      mozjs_sym_private_property_identifier, 1098, 2, mozjs_anon_sym_get, mozjs_anon_sym_set,
      2404, 2, mozjs_anon_sym_LPAREN, mozjs_anon_sym_COLON, 1545, 3, mozjs_sym_string,
      mozjs_sym__property_name, mozjs_sym_computed_property_name, 1094, 5, mozjs_anon_sym_export,
      mozjs_anon_sym_let, mozjs_anon_sym_await, mozjs_sym_identifier, mozjs_anon_sym_static]"

definition mozjs_small_run_42946 :: "nat list" where
  "mozjs_small_run_42946 =
    [15, 105, 1, mozjs_anon_sym_COMMA, 372, 1, mozjs_anon_sym_RBRACE, 1084, 1,
      mozjs_anon_sym_DQUOTE, 1086, 1, mozjs_anon_sym_SQUOTE, 2286, 1, mozjs_anon_sym_LBRACK,
      2400, 1, mozjs_anon_sym_STAR, 2406, 1, mozjs_anon_sym_EQ, 1414, 1,
      mozjs_aux_sym_object_pattern_repeat1, 1442, 1, mozjs_aux_sym_object_repeat1, 5, 2,
      mozjs_sym_html_comment, mozjs_sym_comment, 1090, 2, mozjs_sym_number,
      mozjs_sym_private_property_identifier, 1098, 2, mozjs_anon_sym_get, mozjs_anon_sym_set,
      2404, 2, mozjs_anon_sym_LPAREN, mozjs_anon_sym_COLON, 1545, 3, mozjs_sym_string,
      mozjs_sym__property_name, mozjs_sym_computed_property_name, 1094, 6, mozjs_anon_sym_export,
      mozjs_anon_sym_let, mozjs_anon_sym_await, mozjs_anon_sym_async, mozjs_sym_identifier,
      mozjs_anon_sym_static]"

definition mozjs_small_run_43003 :: "nat list" where
  "mozjs_small_run_43003 =
    [16, 105, 1, mozjs_anon_sym_COMMA, 372, 1, mozjs_anon_sym_RBRACE, 1084, 1,
      mozjs_anon_sym_DQUOTE, 1086, 1, mozjs_anon_sym_SQUOTE, 1096, 1, mozjs_anon_sym_async, 2286,
      1, mozjs_anon_sym_LBRACK, 2400, 1, mozjs_anon_sym_STAR, 2406, 1, mozjs_anon_sym_EQ, 1414,
      1, mozjs_aux_sym_object_pattern_repeat1, 1442, 1, mozjs_aux_sym_object_repeat1, 5, 2,
      mozjs_sym_html_comment, mozjs_sym_comment, 1090, 2, mozjs_sym_number,
      mozjs_sym_private_property_identifier, 1098, 2, mozjs_anon_sym_get, mozjs_anon_sym_set,
      2404, 2, mozjs_anon_sym_LPAREN, mozjs_anon_sym_COLON, 1545, 3, mozjs_sym_string,
      mozjs_sym__property_name, mozjs_sym_computed_property_name, 1094, 5, mozjs_anon_sym_export,
      mozjs_anon_sym_let, mozjs_anon_sym_await, mozjs_sym_identifier, mozjs_anon_sym_static]"

definition mozjs_small_run_43062 :: "nat list" where
  "mozjs_small_run_43062 =
    [15, 105, 1, mozjs_anon_sym_COMMA, 1084, 1, mozjs_anon_sym_DQUOTE, 1086, 1,
      mozjs_anon_sym_SQUOTE, 2286, 1, mozjs_anon_sym_LBRACK, 2400, 1, mozjs_anon_sym_STAR, 2406,
      1, mozjs_anon_sym_EQ, 2408, 1, mozjs_anon_sym_RBRACE, 1414, 1,
      mozjs_aux_sym_object_pattern_repeat1, 1442, 1, mozjs_aux_sym_object_repeat1, 5, 2,
      mozjs_sym_html_comment, mozjs_sym_comment, 1090, 2, mozjs_sym_number,
      mozjs_sym_private_property_identifier, 1098, 2, mozjs_anon_sym_get, mozjs_anon_sym_set,
      2404, 2, mozjs_anon_sym_LPAREN, mozjs_anon_sym_COLON, 1545, 3, mozjs_sym_string,
      mozjs_sym__property_name, mozjs_sym_computed_property_name, 1094, 6, mozjs_anon_sym_export,
      mozjs_anon_sym_let, mozjs_anon_sym_await, mozjs_anon_sym_async, mozjs_sym_identifier,
      mozjs_anon_sym_static]"

definition mozjs_small_run_43119 :: "nat list" where
  "mozjs_small_run_43119 =
    [16, 105, 1, mozjs_anon_sym_COMMA, 1084, 1, mozjs_anon_sym_DQUOTE, 1086, 1,
      mozjs_anon_sym_SQUOTE, 1096, 1, mozjs_anon_sym_async, 2286, 1, mozjs_anon_sym_LBRACK, 2400,
      1, mozjs_anon_sym_STAR, 2406, 1, mozjs_anon_sym_EQ, 2408, 1, mozjs_anon_sym_RBRACE, 1414,
      1, mozjs_aux_sym_object_pattern_repeat1, 1442, 1, mozjs_aux_sym_object_repeat1, 5, 2,
      mozjs_sym_html_comment, mozjs_sym_comment, 1090, 2, mozjs_sym_number,
      mozjs_sym_private_property_identifier, 1098, 2, mozjs_anon_sym_get, mozjs_anon_sym_set,
      2404, 2, mozjs_anon_sym_LPAREN, mozjs_anon_sym_COLON, 1545, 3, mozjs_sym_string,
      mozjs_sym__property_name, mozjs_sym_computed_property_name, 1094, 5, mozjs_anon_sym_export,
      mozjs_anon_sym_let, mozjs_anon_sym_await, mozjs_sym_identifier, mozjs_anon_sym_static]"

definition mozjs_small_run_43178 :: "nat list" where
  "mozjs_small_run_43178 =
    [15, 105, 1, mozjs_anon_sym_COMMA, 1084, 1, mozjs_anon_sym_DQUOTE, 1086, 1,
      mozjs_anon_sym_SQUOTE, 2286, 1, mozjs_anon_sym_LBRACK, 2400, 1, mozjs_anon_sym_STAR, 2406,
      1, mozjs_anon_sym_EQ, 2410, 1, mozjs_anon_sym_RBRACE, 1414, 1,
      mozjs_aux_sym_object_pattern_repeat1, 1442, 1, mozjs_aux_sym_object_repeat1, 5, 2,
      mozjs_sym_html_comment, mozjs_sym_comment, 1090, 2, mozjs_sym_number,
      mozjs_sym_private_property_identifier, 1098, 2, mozjs_anon_sym_get, mozjs_anon_sym_set,
      2404, 2, mozjs_anon_sym_LPAREN, mozjs_anon_sym_COLON, 1545, 3, mozjs_sym_string,
      mozjs_sym__property_name, mozjs_sym_computed_property_name, 1094, 6, mozjs_anon_sym_export,
      mozjs_anon_sym_let, mozjs_anon_sym_await, mozjs_anon_sym_async, mozjs_sym_identifier,
      mozjs_anon_sym_static]"

definition mozjs_small_run_43235 :: "nat list" where
  "mozjs_small_run_43235 =
    [16, 105, 1, mozjs_anon_sym_COMMA, 1084, 1, mozjs_anon_sym_DQUOTE, 1086, 1,
      mozjs_anon_sym_SQUOTE, 1096, 1, mozjs_anon_sym_async, 2286, 1, mozjs_anon_sym_LBRACK, 2400,
      1, mozjs_anon_sym_STAR, 2406, 1, mozjs_anon_sym_EQ, 2410, 1, mozjs_anon_sym_RBRACE, 1414,
      1, mozjs_aux_sym_object_pattern_repeat1, 1442, 1, mozjs_aux_sym_object_repeat1, 5, 2,
      mozjs_sym_html_comment, mozjs_sym_comment, 1090, 2, mozjs_sym_number,
      mozjs_sym_private_property_identifier, 1098, 2, mozjs_anon_sym_get, mozjs_anon_sym_set,
      2404, 2, mozjs_anon_sym_LPAREN, mozjs_anon_sym_COLON, 1545, 3, mozjs_sym_string,
      mozjs_sym__property_name, mozjs_sym_computed_property_name, 1094, 5, mozjs_anon_sym_export,
      mozjs_anon_sym_let, mozjs_anon_sym_await, mozjs_sym_identifier, mozjs_anon_sym_static]"

definition mozjs_small_run_43294 :: "nat list" where
  "mozjs_small_run_43294 =
    [16, 105, 1, mozjs_anon_sym_COMMA, 1084, 1, mozjs_anon_sym_DQUOTE, 1086, 1,
      mozjs_anon_sym_SQUOTE, 1096, 1, mozjs_anon_sym_async, 2286, 1, mozjs_anon_sym_LBRACK, 2400,
      1, mozjs_anon_sym_STAR, 2402, 1, mozjs_anon_sym_RBRACE, 2406, 1, mozjs_anon_sym_EQ, 1414,
      1, mozjs_aux_sym_object_pattern_repeat1, 1442, 1, mozjs_aux_sym_object_repeat1, 5, 2,
      mozjs_sym_html_comment, mozjs_sym_comment, 1090, 2, mozjs_sym_number,
      mozjs_sym_private_property_identifier, 1098, 2, mozjs_anon_sym_get, mozjs_anon_sym_set,
      2404, 2, mozjs_anon_sym_LPAREN, mozjs_anon_sym_COLON, 1545, 3, mozjs_sym_string,
      mozjs_sym__property_name, mozjs_sym_computed_property_name, 1094, 5, mozjs_anon_sym_export,
      mozjs_anon_sym_let, mozjs_anon_sym_await, mozjs_sym_identifier, mozjs_anon_sym_static]"

definition mozjs_small_run_43353 :: "nat list" where
  "mozjs_small_run_43353 =
    [13, 105, 1, mozjs_anon_sym_COMMA, 1084, 1, mozjs_anon_sym_DQUOTE, 1086, 1,
      mozjs_anon_sym_SQUOTE, 2286, 1, mozjs_anon_sym_LBRACK, 2402, 1, mozjs_anon_sym_RBRACE,
      2406, 1, mozjs_anon_sym_EQ, 1414, 1, mozjs_aux_sym_object_pattern_repeat1, 1442, 1,
      mozjs_aux_sym_object_repeat1, 5, 2, mozjs_sym_html_comment, mozjs_sym_comment, 1090, 2,
      mozjs_sym_number, mozjs_sym_private_property_identifier, 2404, 2, mozjs_anon_sym_LPAREN,
      mozjs_anon_sym_COLON, 1545, 3, mozjs_sym_string, mozjs_sym__property_name,
      mozjs_sym_computed_property_name, 1094, 8, mozjs_anon_sym_export, mozjs_anon_sym_let,
      mozjs_anon_sym_await, mozjs_anon_sym_async, mozjs_sym_identifier, mozjs_anon_sym_static,
      mozjs_anon_sym_get, mozjs_anon_sym_set]"

definition mozjs_small_run_43405 :: "nat list" where
  "mozjs_small_run_43405 =
    [13, 105, 1, mozjs_anon_sym_COMMA, 374, 1, mozjs_anon_sym_RBRACE, 1084, 1,
      mozjs_anon_sym_DQUOTE, 1086, 1, mozjs_anon_sym_SQUOTE, 2286, 1, mozjs_anon_sym_LBRACK,
      2406, 1, mozjs_anon_sym_EQ, 1414, 1, mozjs_aux_sym_object_pattern_repeat1, 1442, 1,
      mozjs_aux_sym_object_repeat1, 5, 2, mozjs_sym_html_comment, mozjs_sym_comment, 1090, 2,
      mozjs_sym_number, mozjs_sym_private_property_identifier, 2404, 2, mozjs_anon_sym_LPAREN,
      mozjs_anon_sym_COLON, 1545, 3, mozjs_sym_string, mozjs_sym__property_name,
      mozjs_sym_computed_property_name, 1094, 8, mozjs_anon_sym_export, mozjs_anon_sym_let,
      mozjs_anon_sym_await, mozjs_anon_sym_async, mozjs_sym_identifier, mozjs_anon_sym_static,
      mozjs_anon_sym_get, mozjs_anon_sym_set]"

definition mozjs_small_run_43457 :: "nat list" where
  "mozjs_small_run_43457 =
    [13, 105, 1, mozjs_anon_sym_COMMA, 372, 1, mozjs_anon_sym_RBRACE, 1084, 1,
      mozjs_anon_sym_DQUOTE, 1086, 1, mozjs_anon_sym_SQUOTE, 2286, 1, mozjs_anon_sym_LBRACK,
      2406, 1, mozjs_anon_sym_EQ, 1414, 1, mozjs_aux_sym_object_pattern_repeat1, 1442, 1,
      mozjs_aux_sym_object_repeat1, 5, 2, mozjs_sym_html_comment, mozjs_sym_comment, 1090, 2,
      mozjs_sym_number, mozjs_sym_private_property_identifier, 2404, 2, mozjs_anon_sym_LPAREN,
      mozjs_anon_sym_COLON, 1545, 3, mozjs_sym_string, mozjs_sym__property_name,
      mozjs_sym_computed_property_name, 1094, 8, mozjs_anon_sym_export, mozjs_anon_sym_let,
      mozjs_anon_sym_await, mozjs_anon_sym_async, mozjs_sym_identifier, mozjs_anon_sym_static,
      mozjs_anon_sym_get, mozjs_anon_sym_set]"

definition mozjs_small_run_43509 :: "nat list" where
  "mozjs_small_run_43509 =
    [14, 2304, 1, mozjs_anon_sym_LBRACK, 2306, 1, mozjs_anon_sym_DQUOTE, 2308, 1,
      mozjs_anon_sym_SQUOTE, 2412, 1, mozjs_anon_sym_STAR, 2414, 1, mozjs_anon_sym_LBRACE, 2416,
      1, mozjs_anon_sym_async, 2422, 1, mozjs_sym__automatic_semicolon, 1087, 1,
      mozjs_sym_statement_block, 5, 2, mozjs_sym_html_comment, mozjs_sym_comment, 2418, 2,
      mozjs_sym_number, mozjs_sym_private_property_identifier, 2420, 2, mozjs_anon_sym_get,
      mozjs_anon_sym_set, 2404, 3, mozjs_anon_sym_LPAREN, mozjs_anon_sym_SEMI, mozjs_anon_sym_EQ,
      1245, 3, mozjs_sym_string, mozjs_sym__property_name, mozjs_sym_computed_property_name,
      2296, 5, mozjs_anon_sym_export, mozjs_anon_sym_let, mozjs_anon_sym_await,
      mozjs_sym_identifier, mozjs_anon_sym_static]"

definition mozjs_small_run_43563 :: "nat list" where
  "mozjs_small_run_43563 =
    [13, 105, 1, mozjs_anon_sym_COMMA, 313, 1, mozjs_anon_sym_RBRACE, 1084, 1,
      mozjs_anon_sym_DQUOTE, 1086, 1, mozjs_anon_sym_SQUOTE, 2286, 1, mozjs_anon_sym_LBRACK,
      2406, 1, mozjs_anon_sym_EQ, 1411, 1, mozjs_aux_sym_object_repeat1, 1414, 1,
      mozjs_aux_sym_object_pattern_repeat1, 5, 2, mozjs_sym_html_comment, mozjs_sym_comment,
      1090, 2, mozjs_sym_number, mozjs_sym_private_property_identifier, 2404, 2,
      mozjs_anon_sym_LPAREN, mozjs_anon_sym_COLON, 1545, 3, mozjs_sym_string,
      mozjs_sym__property_name, mozjs_sym_computed_property_name, 1094, 8, mozjs_anon_sym_export,
      mozjs_anon_sym_let, mozjs_anon_sym_await, mozjs_anon_sym_async, mozjs_sym_identifier,
      mozjs_anon_sym_static, mozjs_anon_sym_get, mozjs_anon_sym_set]"

definition mozjs_small_run_43615 :: "nat list" where
  "mozjs_small_run_43615 =
    [13, 105, 1, mozjs_anon_sym_COMMA, 1084, 1, mozjs_anon_sym_DQUOTE, 1086, 1,
      mozjs_anon_sym_SQUOTE, 2286, 1, mozjs_anon_sym_LBRACK, 2406, 1, mozjs_anon_sym_EQ, 2408, 1,
      mozjs_anon_sym_RBRACE, 1414, 1, mozjs_aux_sym_object_pattern_repeat1, 1442, 1,
      mozjs_aux_sym_object_repeat1, 5, 2, mozjs_sym_html_comment, mozjs_sym_comment, 1090, 2,
      mozjs_sym_number, mozjs_sym_private_property_identifier, 2404, 2, mozjs_anon_sym_LPAREN,
      mozjs_anon_sym_COLON, 1545, 3, mozjs_sym_string, mozjs_sym__property_name,
      mozjs_sym_computed_property_name, 1094, 8, mozjs_anon_sym_export, mozjs_anon_sym_let,
      mozjs_anon_sym_await, mozjs_anon_sym_async, mozjs_sym_identifier, mozjs_anon_sym_static,
      mozjs_anon_sym_get, mozjs_anon_sym_set]"

definition mozjs_small_run_43667 :: "nat list" where
  "mozjs_small_run_43667 =
    [13, 105, 1, mozjs_anon_sym_COMMA, 1084, 1, mozjs_anon_sym_DQUOTE, 1086, 1,
      mozjs_anon_sym_SQUOTE, 2286, 1, mozjs_anon_sym_LBRACK, 2406, 1, mozjs_anon_sym_EQ, 2410, 1,
      mozjs_anon_sym_RBRACE, 1414, 1, mozjs_aux_sym_object_pattern_repeat1, 1442, 1,
      mozjs_aux_sym_object_repeat1, 5, 2, mozjs_sym_html_comment, mozjs_sym_comment, 1090, 2,
      mozjs_sym_number, mozjs_sym_private_property_identifier, 2404, 2, mozjs_anon_sym_LPAREN,
      mozjs_anon_sym_COLON, 1545, 3, mozjs_sym_string, mozjs_sym__property_name,
      mozjs_sym_computed_property_name, 1094, 8, mozjs_anon_sym_export, mozjs_anon_sym_let,
      mozjs_anon_sym_await, mozjs_anon_sym_async, mozjs_sym_identifier, mozjs_anon_sym_static,
      mozjs_anon_sym_get, mozjs_anon_sym_set]"

definition mozjs_small_run_43719 :: "nat list" where
  "mozjs_small_run_43719 =
    [14, 1084, 1, mozjs_anon_sym_DQUOTE, 1086, 1, mozjs_anon_sym_SQUOTE, 1096, 1,
      mozjs_anon_sym_async, 2282, 1, mozjs_anon_sym_COMMA, 2286, 1, mozjs_anon_sym_LBRACK, 2400,
      1, mozjs_anon_sym_STAR, 2425, 1, mozjs_anon_sym_RBRACE, 1434, 1,
      mozjs_aux_sym_object_repeat1, 5, 2, mozjs_sym_html_comment, mozjs_sym_comment, 1090, 2,
      mozjs_sym_number, mozjs_sym_private_property_identifier, 1098, 2, mozjs_anon_sym_get,
      mozjs_anon_sym_set, 2404, 2, mozjs_anon_sym_LPAREN, mozjs_anon_sym_COLON, 1545, 3,
      mozjs_sym_string, mozjs_sym__property_name, mozjs_sym_computed_property_name, 1094, 5,
      mozjs_anon_sym_export, mozjs_anon_sym_let, mozjs_anon_sym_await, mozjs_sym_identifier,
      mozjs_anon_sym_static]"

definition mozjs_small_run_43772 :: "nat list" where
  "mozjs_small_run_43772 =
    [13, 1084, 1, mozjs_anon_sym_DQUOTE, 1086, 1, mozjs_anon_sym_SQUOTE, 1096, 1,
      mozjs_anon_sym_async, 2286, 1, mozjs_anon_sym_LBRACK, 2400, 1, mozjs_anon_sym_STAR, 2406,
      1, mozjs_anon_sym_EQ, 5, 2, mozjs_sym_html_comment, mozjs_sym_comment, 1090, 2,
      mozjs_sym_number, mozjs_sym_private_property_identifier, 1098, 2, mozjs_anon_sym_get,
      mozjs_anon_sym_set, 2404, 2, mozjs_anon_sym_LPAREN, mozjs_anon_sym_COLON, 2427, 2,
      mozjs_anon_sym_COMMA, mozjs_anon_sym_RBRACE, 1545, 3, mozjs_sym_string,
      mozjs_sym__property_name, mozjs_sym_computed_property_name, 1094, 5, mozjs_anon_sym_export,
      mozjs_anon_sym_let, mozjs_anon_sym_await, mozjs_sym_identifier, mozjs_anon_sym_static]"

definition mozjs_small_run_43823 :: "nat list" where
  "mozjs_small_run_43823 =
    [13, 1084, 1, mozjs_anon_sym_DQUOTE, 1086, 1, mozjs_anon_sym_SQUOTE, 2282, 1,
      mozjs_anon_sym_COMMA, 2286, 1, mozjs_anon_sym_LBRACK, 2400, 1, mozjs_anon_sym_STAR, 2425,
      1, mozjs_anon_sym_RBRACE, 1434, 1, mozjs_aux_sym_object_repeat1, 5, 2,
      mozjs_sym_html_comment, mozjs_sym_comment, 1090, 2, mozjs_sym_number,
      mozjs_sym_private_property_identifier, 1098, 2, mozjs_anon_sym_get, mozjs_anon_sym_set,
      2404, 2, mozjs_anon_sym_LPAREN, mozjs_anon_sym_COLON, 1545, 3, mozjs_sym_string,
      mozjs_sym__property_name, mozjs_sym_computed_property_name, 1094, 6, mozjs_anon_sym_export,
      mozjs_anon_sym_let, mozjs_anon_sym_await, mozjs_anon_sym_async, mozjs_sym_identifier,
      mozjs_anon_sym_static]"

definition mozjs_small_run_43874 :: "nat list" where
  "mozjs_small_run_43874 =
    [12, 1084, 1, mozjs_anon_sym_DQUOTE, 1086, 1, mozjs_anon_sym_SQUOTE, 2286, 1,
      mozjs_anon_sym_LBRACK, 2400, 1, mozjs_anon_sym_STAR, 2406, 1, mozjs_anon_sym_EQ, 5, 2,
      mozjs_sym_html_comment, mozjs_sym_comment, 1090, 2, mozjs_sym_number,
      mozjs_sym_private_property_identifier, 1098, 2, mozjs_anon_sym_get, mozjs_anon_sym_set,
      2404, 2, mozjs_anon_sym_LPAREN, mozjs_anon_sym_COLON, 2427, 2, mozjs_anon_sym_COMMA,
      mozjs_anon_sym_RBRACE, 1545, 3, mozjs_sym_string, mozjs_sym__property_name,
      mozjs_sym_computed_property_name, 1094, 6, mozjs_anon_sym_export, mozjs_anon_sym_let,
      mozjs_anon_sym_await, mozjs_anon_sym_async, mozjs_sym_identifier, mozjs_anon_sym_static]"

definition mozjs_small_run_43923 :: "nat list" where
  "mozjs_small_run_43923 =
    [18, 93, 1, mozjs_anon_sym_AT, 1084, 1, mozjs_anon_sym_DQUOTE, 1086, 1,
      mozjs_anon_sym_SQUOTE, 2286, 1, mozjs_anon_sym_LBRACK, 2430, 1, mozjs_anon_sym_export,
      2432, 1, mozjs_anon_sym_STAR, 2434, 1, mozjs_anon_sym_class, 2436, 1, mozjs_anon_sym_async,
      2440, 1, mozjs_anon_sym_static, 2442, 1, mozjs_aux_sym_method_definition_token1, 2444, 1,
      mozjs_anon_sym_get, 2446, 1, mozjs_anon_sym_set, 1050, 1,
      mozjs_aux_sym_export_statement_repeat1, 1112, 1, mozjs_sym_decorator, 5, 2,
      mozjs_sym_html_comment, mozjs_sym_comment, 2438, 2, mozjs_sym_number,
      mozjs_sym_private_property_identifier, 1094, 3, mozjs_anon_sym_let, mozjs_anon_sym_await,
      mozjs_sym_identifier, 1673, 3, mozjs_sym_string, mozjs_sym__property_name,
      mozjs_sym_computed_property_name]"

definition mozjs_small_run_43984 :: "nat list" where
  "mozjs_small_run_43984 =
    [11, 1084, 1, mozjs_anon_sym_DQUOTE, 1086, 1, mozjs_anon_sym_SQUOTE, 2286, 1,
      mozjs_anon_sym_LBRACK, 2448, 1, mozjs_anon_sym_STAR, 2452, 1, mozjs_anon_sym_get, 2454, 1,
      mozjs_anon_sym_set, 5, 2, mozjs_sym_html_comment, mozjs_sym_comment, 2450, 2,
      mozjs_sym_number, mozjs_sym_private_property_identifier, 1584, 3, mozjs_sym_string,
      mozjs_sym__property_name, mozjs_sym_computed_property_name, 2404, 4,
      mozjs_sym__automatic_semicolon, mozjs_anon_sym_LPAREN, mozjs_anon_sym_SEMI,
      mozjs_anon_sym_EQ, 1094, 6, mozjs_anon_sym_export, mozjs_anon_sym_let,
      mozjs_anon_sym_await, mozjs_anon_sym_async, mozjs_sym_identifier, mozjs_anon_sym_static]"

definition mozjs_small_run_44030 :: "nat list" where
  "mozjs_small_run_44030 =
    [16, 93, 1, mozjs_anon_sym_AT, 1084, 1, mozjs_anon_sym_DQUOTE, 1086, 1,
      mozjs_anon_sym_SQUOTE, 2286, 1, mozjs_anon_sym_LBRACK, 2432, 1, mozjs_anon_sym_STAR, 2436,
      1, mozjs_anon_sym_async, 2440, 1, mozjs_anon_sym_static, 2442, 1,
      mozjs_aux_sym_method_definition_token1, 2444, 1, mozjs_anon_sym_get, 2446, 1,
      mozjs_anon_sym_set, 1050, 1, mozjs_aux_sym_export_statement_repeat1, 1112, 1,
      mozjs_sym_decorator, 5, 2, mozjs_sym_html_comment, mozjs_sym_comment, 2438, 2,
      mozjs_sym_number, mozjs_sym_private_property_identifier, 1673, 3, mozjs_sym_string,
      mozjs_sym__property_name, mozjs_sym_computed_property_name, 1094, 4, mozjs_anon_sym_export,
      mozjs_anon_sym_let, mozjs_anon_sym_await, mozjs_sym_identifier]"

definition mozjs_small_run_44086 :: "nat list" where
  "mozjs_small_run_44086 =
    [12, 2304, 1, mozjs_anon_sym_LBRACK, 2306, 1, mozjs_anon_sym_DQUOTE, 2308, 1,
      mozjs_anon_sym_SQUOTE, 2456, 1, mozjs_anon_sym_STAR, 2458, 1, mozjs_anon_sym_async, 2462,
      1, mozjs_anon_sym_get, 2464, 1, mozjs_anon_sym_set, 5, 2, mozjs_sym_html_comment,
      mozjs_sym_comment, 2460, 2, mozjs_sym_number, mozjs_sym_private_property_identifier, 1230,
      3, mozjs_sym_string, mozjs_sym__property_name, mozjs_sym_computed_property_name, 2404, 4,
      mozjs_sym__automatic_semicolon, mozjs_anon_sym_LPAREN, mozjs_anon_sym_SEMI,
      mozjs_anon_sym_EQ, 2296, 5, mozjs_anon_sym_export, mozjs_anon_sym_let,
      mozjs_anon_sym_await, mozjs_sym_identifier, mozjs_anon_sym_static]"

definition mozjs_small_run_44134 :: "nat list" where
  "mozjs_small_run_44134 =
    [10, 1084, 1, mozjs_anon_sym_DQUOTE, 1086, 1, mozjs_anon_sym_SQUOTE, 2286, 1,
      mozjs_anon_sym_LBRACK, 2406, 1, mozjs_anon_sym_EQ, 5, 2, mozjs_sym_html_comment,
      mozjs_sym_comment, 1090, 2, mozjs_sym_number, mozjs_sym_private_property_identifier, 2404,
      2, mozjs_anon_sym_LPAREN, mozjs_anon_sym_COLON, 2427, 2, mozjs_anon_sym_COMMA,
      mozjs_anon_sym_RBRACE, 1545, 3, mozjs_sym_string, mozjs_sym__property_name,
      mozjs_sym_computed_property_name, 1094, 8, mozjs_anon_sym_export, mozjs_anon_sym_let,
      mozjs_anon_sym_await, mozjs_anon_sym_async, mozjs_sym_identifier, mozjs_anon_sym_static,
      mozjs_anon_sym_get, mozjs_anon_sym_set]"

definition mozjs_small_run_44178 :: "nat list" where
  "mozjs_small_run_44178 =
    [11, 1084, 1, mozjs_anon_sym_DQUOTE, 1086, 1, mozjs_anon_sym_SQUOTE, 2282, 1,
      mozjs_anon_sym_COMMA, 2286, 1, mozjs_anon_sym_LBRACK, 2425, 1, mozjs_anon_sym_RBRACE, 1434,
      1, mozjs_aux_sym_object_repeat1, 5, 2, mozjs_sym_html_comment, mozjs_sym_comment, 1090, 2,
      mozjs_sym_number, mozjs_sym_private_property_identifier, 2404, 2, mozjs_anon_sym_LPAREN,
      mozjs_anon_sym_COLON, 1545, 3, mozjs_sym_string, mozjs_sym__property_name,
      mozjs_sym_computed_property_name, 1094, 8, mozjs_anon_sym_export, mozjs_anon_sym_let,
      mozjs_anon_sym_await, mozjs_anon_sym_async, mozjs_sym_identifier, mozjs_anon_sym_static,
      mozjs_anon_sym_get, mozjs_anon_sym_set]"

definition mozjs_small_run_44224 :: "nat list" where
  "mozjs_small_run_44224 =
    [11, 1084, 1, mozjs_anon_sym_DQUOTE, 1086, 1, mozjs_anon_sym_SQUOTE, 2286, 1,
      mozjs_anon_sym_LBRACK, 2466, 1, mozjs_anon_sym_STAR, 2470, 1, mozjs_anon_sym_get, 2472, 1,
      mozjs_anon_sym_set, 5, 2, mozjs_sym_html_comment, mozjs_sym_comment, 2468, 2,
      mozjs_sym_number, mozjs_sym_private_property_identifier, 1600, 3, mozjs_sym_string,
      mozjs_sym__property_name, mozjs_sym_computed_property_name, 2404, 4,
      mozjs_sym__automatic_semicolon, mozjs_anon_sym_LPAREN, mozjs_anon_sym_SEMI,
      mozjs_anon_sym_EQ, 1094, 6, mozjs_anon_sym_export, mozjs_anon_sym_let,
      mozjs_anon_sym_await, mozjs_anon_sym_async, mozjs_sym_identifier, mozjs_anon_sym_static]"

definition mozjs_small_run_44270 :: "nat list" where
  "mozjs_small_run_44270 =
    [11, 1084, 1, mozjs_anon_sym_DQUOTE, 1086, 1, mozjs_anon_sym_SQUOTE, 2286, 1,
      mozjs_anon_sym_LBRACK, 2400, 1, mozjs_anon_sym_STAR, 5, 2, mozjs_sym_html_comment,
      mozjs_sym_comment, 1090, 2, mozjs_sym_number, mozjs_sym_private_property_identifier, 1098,
      2, mozjs_anon_sym_get, mozjs_anon_sym_set, 2404, 2, mozjs_anon_sym_LPAREN,
      mozjs_anon_sym_COLON, 2474, 2, mozjs_anon_sym_COMMA, mozjs_anon_sym_RBRACE, 1545, 3,
      mozjs_sym_string, mozjs_sym__property_name, mozjs_sym_computed_property_name, 1094, 6,
      mozjs_anon_sym_export, mozjs_anon_sym_let, mozjs_anon_sym_await, mozjs_anon_sym_async,
      mozjs_sym_identifier, mozjs_anon_sym_static]"

definition mozjs_small_run_44316 :: "nat list" where
  "mozjs_small_run_44316 =
    [10, 1084, 1, mozjs_anon_sym_DQUOTE, 1086, 1, mozjs_anon_sym_SQUOTE, 2286, 1,
      mozjs_anon_sym_LBRACK, 2412, 1, mozjs_anon_sym_STAR, 5, 2, mozjs_sym_html_comment,
      mozjs_sym_comment, 2476, 2, mozjs_sym_number, mozjs_sym_private_property_identifier, 2478,
      2, mozjs_anon_sym_get, mozjs_anon_sym_set, 1557, 3, mozjs_sym_string,
      mozjs_sym__property_name, mozjs_sym_computed_property_name, 2404, 4,
      mozjs_sym__automatic_semicolon, mozjs_anon_sym_LPAREN, mozjs_anon_sym_SEMI,
      mozjs_anon_sym_EQ, 1094, 6, mozjs_anon_sym_export, mozjs_anon_sym_let,
      mozjs_anon_sym_await, mozjs_anon_sym_async, mozjs_sym_identifier, mozjs_anon_sym_static]"

definition mozjs_small_run_44360 :: "nat list" where
  "mozjs_small_run_44360 =
    [16, 93, 1, mozjs_anon_sym_AT, 2304, 1, mozjs_anon_sym_LBRACK, 2306, 1,
      mozjs_anon_sym_DQUOTE, 2308, 1, mozjs_anon_sym_SQUOTE, 2480, 1, mozjs_anon_sym_STAR, 2482,
      1, mozjs_anon_sym_async, 2486, 1, mozjs_anon_sym_static, 2488, 1,
      mozjs_aux_sym_method_definition_token1, 2490, 1, mozjs_anon_sym_get, 2492, 1,
      mozjs_anon_sym_set, 1050, 1, mozjs_aux_sym_export_statement_repeat1, 1112, 1,
      mozjs_sym_decorator, 5, 2, mozjs_sym_html_comment, mozjs_sym_comment, 2484, 2,
      mozjs_sym_number, mozjs_sym_private_property_identifier, 1246, 3, mozjs_sym_string,
      mozjs_sym__property_name, mozjs_sym_computed_property_name, 2296, 4, mozjs_anon_sym_export,
      mozjs_anon_sym_let, mozjs_anon_sym_await, mozjs_sym_identifier]"

definition mozjs_small_run_44416 :: "nat list" where
  "mozjs_small_run_44416 =
    [12, 1084, 1, mozjs_anon_sym_DQUOTE, 1086, 1, mozjs_anon_sym_SQUOTE, 1096, 1,
      mozjs_anon_sym_async, 2286, 1, mozjs_anon_sym_LBRACK, 2400, 1, mozjs_anon_sym_STAR, 5, 2,
      mozjs_sym_html_comment, mozjs_sym_comment, 1090, 2, mozjs_sym_number,
      mozjs_sym_private_property_identifier, 1098, 2, mozjs_anon_sym_get, mozjs_anon_sym_set,
      2404, 2, mozjs_anon_sym_LPAREN, mozjs_anon_sym_COLON, 2474, 2, mozjs_anon_sym_COMMA,
      mozjs_anon_sym_RBRACE, 1545, 3, mozjs_sym_string, mozjs_sym__property_name,
      mozjs_sym_computed_property_name, 1094, 5, mozjs_anon_sym_export, mozjs_anon_sym_let,
      mozjs_anon_sym_await, mozjs_sym_identifier, mozjs_anon_sym_static]"

definition mozjs_small_run_44464 :: "nat list" where
  "mozjs_small_run_44464 =
    [10, 1084, 1, mozjs_anon_sym_DQUOTE, 1086, 1, mozjs_anon_sym_SQUOTE, 2286, 1,
      mozjs_anon_sym_LBRACK, 2494, 1, mozjs_anon_sym_STAR, 5, 2, mozjs_sym_html_comment,
      mozjs_sym_comment, 2496, 2, mozjs_sym_number, mozjs_sym_private_property_identifier, 2498,
      2, mozjs_anon_sym_get, mozjs_anon_sym_set, 1582, 3, mozjs_sym_string,
      mozjs_sym__property_name, mozjs_sym_computed_property_name, 2404, 4,
      mozjs_sym__automatic_semicolon, mozjs_anon_sym_LPAREN, mozjs_anon_sym_SEMI,
      mozjs_anon_sym_EQ, 1094, 6, mozjs_anon_sym_export, mozjs_anon_sym_let,
      mozjs_anon_sym_await, mozjs_anon_sym_async, mozjs_sym_identifier, mozjs_anon_sym_static]"

definition mozjs_small_run_44508 :: "nat list" where
  "mozjs_small_run_44508 =
    [8, 1084, 1, mozjs_anon_sym_DQUOTE, 1086, 1, mozjs_anon_sym_SQUOTE, 2286, 1,
      mozjs_anon_sym_LBRACK, 5, 2, mozjs_sym_html_comment, mozjs_sym_comment, 2500, 2,
      mozjs_sym_number, mozjs_sym_private_property_identifier, 1587, 3, mozjs_sym_string,
      mozjs_sym__property_name, mozjs_sym_computed_property_name, 2404, 4,
      mozjs_sym__automatic_semicolon, mozjs_anon_sym_LPAREN, mozjs_anon_sym_SEMI,
      mozjs_anon_sym_EQ, 1094, 8, mozjs_anon_sym_export, mozjs_anon_sym_let,
      mozjs_anon_sym_await, mozjs_anon_sym_async, mozjs_sym_identifier, mozjs_anon_sym_static,
      mozjs_anon_sym_get, mozjs_anon_sym_set]"

definition mozjs_small_run_44547 :: "nat list" where
  "mozjs_small_run_44547 =
    [6, 2506, 1, mozjs_anon_sym_LPAREN, 2508, 1, mozjs_anon_sym_DOT, 1111, 1,
      mozjs_sym_arguments, 5, 2, mozjs_sym_html_comment, mozjs_sym_comment, 2504, 8,
      mozjs_anon_sym_STAR, mozjs_anon_sym_LBRACK, mozjs_anon_sym_DQUOTE, mozjs_anon_sym_SQUOTE,
      mozjs_sym_number, mozjs_sym_private_property_identifier, mozjs_anon_sym_AT,
      mozjs_aux_sym_method_definition_token1, 2502, 9, mozjs_anon_sym_export, mozjs_anon_sym_let,
      mozjs_anon_sym_await, mozjs_anon_sym_class, mozjs_anon_sym_async, mozjs_sym_identifier,
      mozjs_anon_sym_static, mozjs_anon_sym_get, mozjs_anon_sym_set]"

definition mozjs_small_run_44582 :: "nat list" where
  "mozjs_small_run_44582 =
    [8, 1084, 1, mozjs_anon_sym_DQUOTE, 1086, 1, mozjs_anon_sym_SQUOTE, 2286, 1,
      mozjs_anon_sym_LBRACK, 5, 2, mozjs_sym_html_comment, mozjs_sym_comment, 2510, 2,
      mozjs_sym_number, mozjs_sym_private_property_identifier, 1586, 3, mozjs_sym_string,
      mozjs_sym__property_name, mozjs_sym_computed_property_name, 2404, 4,
      mozjs_sym__automatic_semicolon, mozjs_anon_sym_LPAREN, mozjs_anon_sym_SEMI,
      mozjs_anon_sym_EQ, 1094, 8, mozjs_anon_sym_export, mozjs_anon_sym_let,
      mozjs_anon_sym_await, mozjs_anon_sym_async, mozjs_sym_identifier, mozjs_anon_sym_static,
      mozjs_anon_sym_get, mozjs_anon_sym_set]"

definition mozjs_small_run_44621 :: "nat list" where
  "mozjs_small_run_44621 =
    [8, 1084, 1, mozjs_anon_sym_DQUOTE, 1086, 1, mozjs_anon_sym_SQUOTE, 2286, 1,
      mozjs_anon_sym_LBRACK, 5, 2, mozjs_sym_html_comment, mozjs_sym_comment, 2496, 2,
      mozjs_sym_number, mozjs_sym_private_property_identifier, 1582, 3, mozjs_sym_string,
      mozjs_sym__property_name, mozjs_sym_computed_property_name, 2404, 4,
      mozjs_sym__automatic_semicolon, mozjs_anon_sym_LPAREN, mozjs_anon_sym_SEMI,
      mozjs_anon_sym_EQ, 1094, 8, mozjs_anon_sym_export, mozjs_anon_sym_let,
      mozjs_anon_sym_await, mozjs_anon_sym_async, mozjs_sym_identifier, mozjs_anon_sym_static,
      mozjs_anon_sym_get, mozjs_anon_sym_set]"

definition mozjs_small_run_44660 :: "nat list" where
  "mozjs_small_run_44660 =
    [8, 1084, 1, mozjs_anon_sym_DQUOTE, 1086, 1, mozjs_anon_sym_SQUOTE, 2286, 1,
      mozjs_anon_sym_LBRACK, 5, 2, mozjs_sym_html_comment, mozjs_sym_comment, 2512, 2,
      mozjs_sym_number, mozjs_sym_private_property_identifier, 1602, 3, mozjs_sym_string,
      mozjs_sym__property_name, mozjs_sym_computed_property_name, 2404, 4,
      mozjs_sym__automatic_semicolon, mozjs_anon_sym_LPAREN, mozjs_anon_sym_SEMI,
      mozjs_anon_sym_EQ, 1094, 8, mozjs_anon_sym_export, mozjs_anon_sym_let,
      mozjs_anon_sym_await, mozjs_anon_sym_async, mozjs_sym_identifier, mozjs_anon_sym_static,
      mozjs_anon_sym_get, mozjs_anon_sym_set]"

definition mozjs_small_run_44699 :: "nat list" where
  "mozjs_small_run_44699 =
    [9, 1084, 1, mozjs_anon_sym_DQUOTE, 1086, 1, mozjs_anon_sym_SQUOTE, 2286, 1,
      mozjs_anon_sym_LBRACK, 5, 2, mozjs_sym_html_comment, mozjs_sym_comment, 1090, 2,
      mozjs_sym_number, mozjs_sym_private_property_identifier, 2404, 2, mozjs_anon_sym_LPAREN,
      mozjs_anon_sym_COLON, 2474, 2, mozjs_anon_sym_COMMA, mozjs_anon_sym_RBRACE, 1545, 3,
      mozjs_sym_string, mozjs_sym__property_name, mozjs_sym_computed_property_name, 1094, 8,
      mozjs_anon_sym_export, mozjs_anon_sym_let, mozjs_anon_sym_await, mozjs_anon_sym_async,
      mozjs_sym_identifier, mozjs_anon_sym_static, mozjs_anon_sym_get, mozjs_anon_sym_set]"

definition mozjs_small_run_44740 :: "nat list" where
  "mozjs_small_run_44740 =
    [15, 93, 1, mozjs_anon_sym_AT, 941, 1, mozjs_anon_sym_var, 945, 1, mozjs_anon_sym_using, 947,
      1, mozjs_anon_sym_await, 952, 1, mozjs_anon_sym_class, 954, 1, mozjs_anon_sym_async, 956,
      1, mozjs_anon_sym_function, 2404, 1, mozjs_anon_sym_LPAREN, 2514, 1,
      mozjs_anon_sym_default, 485, 1, mozjs_sym_declaration, 1112, 1, mozjs_sym_decorator, 1355,
      1, mozjs_aux_sym_export_statement_repeat1, 5, 2, mozjs_sym_html_comment, mozjs_sym_comment,
      943, 2, mozjs_anon_sym_let, mozjs_anon_sym_const, 427, 6, mozjs_sym_variable_declaration,
      mozjs_sym_lexical_declaration, mozjs_sym_using_declaration, mozjs_sym_class_declaration,
      mozjs_sym_function_declaration, mozjs_sym_generator_function_declaration]"

definition mozjs_small_run_44793 :: "nat list" where
  "mozjs_small_run_44793 =
    [8, 1084, 1, mozjs_anon_sym_DQUOTE, 1086, 1, mozjs_anon_sym_SQUOTE, 2286, 1,
      mozjs_anon_sym_LBRACK, 5, 2, mozjs_sym_html_comment, mozjs_sym_comment, 2516, 2,
      mozjs_sym_number, mozjs_sym_private_property_identifier, 1601, 3, mozjs_sym_string,
      mozjs_sym__property_name, mozjs_sym_computed_property_name, 2404, 4,
      mozjs_sym__automatic_semicolon, mozjs_anon_sym_LPAREN, mozjs_anon_sym_SEMI,
      mozjs_anon_sym_EQ, 1094, 8, mozjs_anon_sym_export, mozjs_anon_sym_let,
      mozjs_anon_sym_await, mozjs_anon_sym_async, mozjs_sym_identifier, mozjs_anon_sym_static,
      mozjs_anon_sym_get, mozjs_anon_sym_set]"

definition mozjs_small_run_44832 :: "nat list" where
  "mozjs_small_run_44832 =
    [8, 1084, 1, mozjs_anon_sym_DQUOTE, 1086, 1, mozjs_anon_sym_SQUOTE, 2286, 1,
      mozjs_anon_sym_LBRACK, 5, 2, mozjs_sym_html_comment, mozjs_sym_comment, 2476, 2,
      mozjs_sym_number, mozjs_sym_private_property_identifier, 1557, 3, mozjs_sym_string,
      mozjs_sym__property_name, mozjs_sym_computed_property_name, 2404, 4,
      mozjs_sym__automatic_semicolon, mozjs_anon_sym_LPAREN, mozjs_anon_sym_SEMI,
      mozjs_anon_sym_EQ, 1094, 8, mozjs_anon_sym_export, mozjs_anon_sym_let,
      mozjs_anon_sym_await, mozjs_anon_sym_async, mozjs_sym_identifier, mozjs_anon_sym_static,
      mozjs_anon_sym_get, mozjs_anon_sym_set]"

definition mozjs_small_run_44871 :: "nat list" where
  "mozjs_small_run_44871 =
    [3, 5, 2, mozjs_sym_html_comment, mozjs_sym_comment, 2518, 8, mozjs_anon_sym_export,
      mozjs_anon_sym_let, mozjs_anon_sym_await, mozjs_anon_sym_async, mozjs_sym_identifier,
      mozjs_anon_sym_static, mozjs_anon_sym_get, mozjs_anon_sym_set, 2520, 11,
      mozjs_anon_sym_STAR, mozjs_anon_sym_COMMA, mozjs_anon_sym_RBRACE, mozjs_anon_sym_SEMI,
      mozjs_anon_sym_LBRACK, mozjs_anon_sym_DQUOTE, mozjs_anon_sym_SQUOTE, mozjs_sym_number,
      mozjs_sym_private_property_identifier, mozjs_anon_sym_AT,
      mozjs_aux_sym_method_definition_token1]"

definition mozjs_small_run_44899 :: "nat list" where
  "mozjs_small_run_44899 =
    [3, 5, 2, mozjs_sym_html_comment, mozjs_sym_comment, 2522, 8, mozjs_anon_sym_export,
      mozjs_anon_sym_let, mozjs_anon_sym_await, mozjs_anon_sym_async, mozjs_sym_identifier,
      mozjs_anon_sym_static, mozjs_anon_sym_get, mozjs_anon_sym_set, 2524, 11,
      mozjs_anon_sym_STAR, mozjs_anon_sym_COMMA, mozjs_anon_sym_RBRACE, mozjs_anon_sym_SEMI,
      mozjs_anon_sym_LBRACK, mozjs_anon_sym_DQUOTE, mozjs_anon_sym_SQUOTE, mozjs_sym_number,
      mozjs_sym_private_property_identifier, mozjs_anon_sym_AT,
      mozjs_aux_sym_method_definition_token1]"

definition mozjs_small_run_44927 :: "nat list" where
  "mozjs_small_run_44927 =
    [3, 5, 2, mozjs_sym_html_comment, mozjs_sym_comment, 2526, 8, mozjs_anon_sym_export,
      mozjs_anon_sym_let, mozjs_anon_sym_await, mozjs_anon_sym_async, mozjs_sym_identifier,
      mozjs_anon_sym_static, mozjs_anon_sym_get, mozjs_anon_sym_set, 2528, 11,
      mozjs_anon_sym_STAR, mozjs_anon_sym_COMMA, mozjs_anon_sym_RBRACE, mozjs_anon_sym_SEMI,
      mozjs_anon_sym_LBRACK, mozjs_anon_sym_DQUOTE, mozjs_anon_sym_SQUOTE, mozjs_sym_number,
      mozjs_sym_private_property_identifier, mozjs_anon_sym_AT,
      mozjs_aux_sym_method_definition_token1]"

definition mozjs_small_run_44955 :: "nat list" where
  "mozjs_small_run_44955 =
    [14, 93, 1, mozjs_anon_sym_AT, 941, 1, mozjs_anon_sym_var, 945, 1, mozjs_anon_sym_using, 947,
      1, mozjs_anon_sym_await, 952, 1, mozjs_anon_sym_class, 954, 1, mozjs_anon_sym_async, 956,
      1, mozjs_anon_sym_function, 2514, 1, mozjs_anon_sym_default, 485, 1, mozjs_sym_declaration,
      1112, 1, mozjs_sym_decorator, 1355, 1, mozjs_aux_sym_export_statement_repeat1, 5, 2,
      mozjs_sym_html_comment, mozjs_sym_comment, 943, 2, mozjs_anon_sym_let,
      mozjs_anon_sym_const, 427, 6, mozjs_sym_variable_declaration,
      mozjs_sym_lexical_declaration, mozjs_sym_using_declaration, mozjs_sym_class_declaration,
      mozjs_sym_function_declaration, mozjs_sym_generator_function_declaration]"

definition mozjs_small_run_45005 :: "nat list" where
  "mozjs_small_run_45005 =
    [3, 5, 2, mozjs_sym_html_comment, mozjs_sym_comment, 2522, 8, mozjs_anon_sym_export,
      mozjs_anon_sym_let, mozjs_anon_sym_await, mozjs_anon_sym_async, mozjs_sym_identifier,
      mozjs_anon_sym_static, mozjs_anon_sym_get, mozjs_anon_sym_set, 2524, 11,
      mozjs_anon_sym_STAR, mozjs_anon_sym_COMMA, mozjs_anon_sym_RBRACE, mozjs_anon_sym_SEMI,
      mozjs_anon_sym_LBRACK, mozjs_anon_sym_DQUOTE, mozjs_anon_sym_SQUOTE, mozjs_sym_number,
      mozjs_sym_private_property_identifier, mozjs_anon_sym_AT,
      mozjs_aux_sym_method_definition_token1]"

definition mozjs_small_run_45033 :: "nat list" where
  "mozjs_small_run_45033 =
    [3, 5, 2, mozjs_sym_html_comment, mozjs_sym_comment, 2522, 8, mozjs_anon_sym_export,
      mozjs_anon_sym_let, mozjs_anon_sym_await, mozjs_anon_sym_async, mozjs_sym_identifier,
      mozjs_anon_sym_static, mozjs_anon_sym_get, mozjs_anon_sym_set, 2524, 11,
      mozjs_anon_sym_STAR, mozjs_anon_sym_COMMA, mozjs_anon_sym_RBRACE, mozjs_anon_sym_SEMI,
      mozjs_anon_sym_LBRACK, mozjs_anon_sym_DQUOTE, mozjs_anon_sym_SQUOTE, mozjs_sym_number,
      mozjs_sym_private_property_identifier, mozjs_anon_sym_AT,
      mozjs_aux_sym_method_definition_token1]"

definition mozjs_small_run_45061 :: "nat list" where
  "mozjs_small_run_45061 =
    [3, 5, 2, mozjs_sym_html_comment, mozjs_sym_comment, 2530, 8, mozjs_anon_sym_export,
      mozjs_anon_sym_let, mozjs_anon_sym_await, mozjs_anon_sym_async, mozjs_sym_identifier,
      mozjs_anon_sym_static, mozjs_anon_sym_get, mozjs_anon_sym_set, 2532, 11,
      mozjs_anon_sym_STAR, mozjs_anon_sym_COMMA, mozjs_anon_sym_RBRACE, mozjs_anon_sym_SEMI,
      mozjs_anon_sym_LBRACK, mozjs_anon_sym_DQUOTE, mozjs_anon_sym_SQUOTE, mozjs_sym_number,
      mozjs_sym_private_property_identifier, mozjs_anon_sym_AT,
      mozjs_aux_sym_method_definition_token1]"

definition mozjs_small_run_45089 :: "nat list" where
  "mozjs_small_run_45089 =
    [3, 5, 2, mozjs_sym_html_comment, mozjs_sym_comment, 2534, 8, mozjs_anon_sym_export,
      mozjs_anon_sym_let, mozjs_anon_sym_await, mozjs_anon_sym_async, mozjs_sym_identifier,
      mozjs_anon_sym_static, mozjs_anon_sym_get, mozjs_anon_sym_set, 2536, 11,
      mozjs_anon_sym_STAR, mozjs_anon_sym_COMMA, mozjs_anon_sym_RBRACE, mozjs_anon_sym_SEMI,
      mozjs_anon_sym_LBRACK, mozjs_anon_sym_DQUOTE, mozjs_anon_sym_SQUOTE, mozjs_sym_number,
      mozjs_sym_private_property_identifier, mozjs_anon_sym_AT,
      mozjs_aux_sym_method_definition_token1]"

definition mozjs_small_run_45117 :: "nat list" where
  "mozjs_small_run_45117 =
    [6, 2542, 1, mozjs_anon_sym_AT, 1050, 1, mozjs_aux_sym_export_statement_repeat1, 1112, 1,
      mozjs_sym_decorator, 5, 2, mozjs_sym_html_comment, mozjs_sym_comment, 2540, 7,
      mozjs_anon_sym_STAR, mozjs_anon_sym_LBRACK, mozjs_anon_sym_DQUOTE, mozjs_anon_sym_SQUOTE,
      mozjs_sym_number, mozjs_sym_private_property_identifier,
      mozjs_aux_sym_method_definition_token1, 2538, 9, mozjs_anon_sym_export, mozjs_anon_sym_let,
      mozjs_anon_sym_await, mozjs_anon_sym_class, mozjs_anon_sym_async, mozjs_sym_identifier,
      mozjs_anon_sym_static, mozjs_anon_sym_get, mozjs_anon_sym_set]"

definition mozjs_small_run_45151 :: "nat list" where
  "mozjs_small_run_45151 =
    [3, 5, 2, mozjs_sym_html_comment, mozjs_sym_comment, 2522, 8, mozjs_anon_sym_export,
      mozjs_anon_sym_let, mozjs_anon_sym_await, mozjs_anon_sym_async, mozjs_sym_identifier,
      mozjs_anon_sym_static, mozjs_anon_sym_get, mozjs_anon_sym_set, 2524, 11,
      mozjs_anon_sym_STAR, mozjs_anon_sym_COMMA, mozjs_anon_sym_RBRACE, mozjs_anon_sym_SEMI,
      mozjs_anon_sym_LBRACK, mozjs_anon_sym_DQUOTE, mozjs_anon_sym_SQUOTE, mozjs_sym_number,
      mozjs_sym_private_property_identifier, mozjs_anon_sym_AT,
      mozjs_aux_sym_method_definition_token1]"

definition mozjs_small_run_45179 :: "nat list" where
  "mozjs_small_run_45179 =
    [4, 2545, 1, mozjs_sym__automatic_semicolon, 5, 2, mozjs_sym_html_comment, mozjs_sym_comment,
      705, 8, mozjs_anon_sym_export, mozjs_anon_sym_let, mozjs_anon_sym_await,
      mozjs_anon_sym_async, mozjs_sym_identifier, mozjs_anon_sym_static, mozjs_anon_sym_get,
      mozjs_anon_sym_set, 703, 10, mozjs_anon_sym_STAR, mozjs_anon_sym_RBRACE,
      mozjs_anon_sym_SEMI, mozjs_anon_sym_LBRACK, mozjs_anon_sym_DQUOTE, mozjs_anon_sym_SQUOTE,
      mozjs_sym_number, mozjs_sym_private_property_identifier, mozjs_anon_sym_AT,
      mozjs_aux_sym_method_definition_token1]"

definition mozjs_small_run_45209 :: "nat list" where
  "mozjs_small_run_45209 =
    [3, 5, 2, mozjs_sym_html_comment, mozjs_sym_comment, 2522, 8, mozjs_anon_sym_export,
      mozjs_anon_sym_let, mozjs_anon_sym_await, mozjs_anon_sym_async, mozjs_sym_identifier,
      mozjs_anon_sym_static, mozjs_anon_sym_get, mozjs_anon_sym_set, 2524, 11,
      mozjs_anon_sym_STAR, mozjs_anon_sym_COMMA, mozjs_anon_sym_RBRACE, mozjs_anon_sym_SEMI,
      mozjs_anon_sym_LBRACK, mozjs_anon_sym_DQUOTE, mozjs_anon_sym_SQUOTE, mozjs_sym_number,
      mozjs_sym_private_property_identifier, mozjs_anon_sym_AT,
      mozjs_aux_sym_method_definition_token1]"

definition mozjs_small_run_45237 :: "nat list" where
  "mozjs_small_run_45237 =
    [3, 5, 2, mozjs_sym_html_comment, mozjs_sym_comment, 2522, 8, mozjs_anon_sym_export,
      mozjs_anon_sym_let, mozjs_anon_sym_await, mozjs_anon_sym_async, mozjs_sym_identifier,
      mozjs_anon_sym_static, mozjs_anon_sym_get, mozjs_anon_sym_set, 2524, 11,
      mozjs_anon_sym_STAR, mozjs_anon_sym_COMMA, mozjs_anon_sym_RBRACE, mozjs_anon_sym_SEMI,
      mozjs_anon_sym_LBRACK, mozjs_anon_sym_DQUOTE, mozjs_anon_sym_SQUOTE, mozjs_sym_number,
      mozjs_sym_private_property_identifier, mozjs_anon_sym_AT,
      mozjs_aux_sym_method_definition_token1]"

definition mozjs_small_run_45265 :: "nat list" where
  "mozjs_small_run_45265 =
    [3, 5, 2, mozjs_sym_html_comment, mozjs_sym_comment, 2547, 8, mozjs_anon_sym_export,
      mozjs_anon_sym_let, mozjs_anon_sym_await, mozjs_anon_sym_async, mozjs_sym_identifier,
      mozjs_anon_sym_static, mozjs_anon_sym_get, mozjs_anon_sym_set, 2549, 11,
      mozjs_anon_sym_STAR, mozjs_anon_sym_COMMA, mozjs_anon_sym_RBRACE, mozjs_anon_sym_SEMI,
      mozjs_anon_sym_LBRACK, mozjs_anon_sym_DQUOTE, mozjs_anon_sym_SQUOTE, mozjs_sym_number,
      mozjs_sym_private_property_identifier, mozjs_anon_sym_AT,
      mozjs_aux_sym_method_definition_token1]"

definition mozjs_small_run_45293 :: "nat list" where
  "mozjs_small_run_45293 =
    [3, 5, 2, mozjs_sym_html_comment, mozjs_sym_comment, 2522, 8, mozjs_anon_sym_export,
      mozjs_anon_sym_let, mozjs_anon_sym_await, mozjs_anon_sym_async, mozjs_sym_identifier,
      mozjs_anon_sym_static, mozjs_anon_sym_get, mozjs_anon_sym_set, 2524, 11,
      mozjs_anon_sym_STAR, mozjs_anon_sym_COMMA, mozjs_anon_sym_RBRACE, mozjs_anon_sym_SEMI,
      mozjs_anon_sym_LBRACK, mozjs_anon_sym_DQUOTE, mozjs_anon_sym_SQUOTE, mozjs_sym_number,
      mozjs_sym_private_property_identifier, mozjs_anon_sym_AT,
      mozjs_aux_sym_method_definition_token1]"

definition mozjs_small_run_45321 :: "nat list" where
  "mozjs_small_run_45321 =
    [4, 2551, 1, mozjs_sym__automatic_semicolon, 5, 2, mozjs_sym_html_comment, mozjs_sym_comment,
      699, 8, mozjs_anon_sym_export, mozjs_anon_sym_let, mozjs_anon_sym_await,
      mozjs_anon_sym_async, mozjs_sym_identifier, mozjs_anon_sym_static, mozjs_anon_sym_get,
      mozjs_anon_sym_set, 697, 10, mozjs_anon_sym_STAR, mozjs_anon_sym_RBRACE,
      mozjs_anon_sym_SEMI, mozjs_anon_sym_LBRACK, mozjs_anon_sym_DQUOTE, mozjs_anon_sym_SQUOTE,
      mozjs_sym_number, mozjs_sym_private_property_identifier, mozjs_anon_sym_AT,
      mozjs_aux_sym_method_definition_token1]"

definition mozjs_small_run_45351 :: "nat list" where
  "mozjs_small_run_45351 =
    [3, 5, 2, mozjs_sym_html_comment, mozjs_sym_comment, 2522, 8, mozjs_anon_sym_export,
      mozjs_anon_sym_let, mozjs_anon_sym_await, mozjs_anon_sym_async, mozjs_sym_identifier,
      mozjs_anon_sym_static, mozjs_anon_sym_get, mozjs_anon_sym_set, 2524, 11,
      mozjs_anon_sym_STAR, mozjs_anon_sym_COMMA, mozjs_anon_sym_RBRACE, mozjs_anon_sym_SEMI,
      mozjs_anon_sym_LBRACK, mozjs_anon_sym_DQUOTE, mozjs_anon_sym_SQUOTE, mozjs_sym_number,
      mozjs_sym_private_property_identifier, mozjs_anon_sym_AT,
      mozjs_aux_sym_method_definition_token1]"

definition mozjs_small_run_45379 :: "nat list" where
  "mozjs_small_run_45379 =
    [3, 5, 2, mozjs_sym_html_comment, mozjs_sym_comment, 2522, 8, mozjs_anon_sym_export,
      mozjs_anon_sym_let, mozjs_anon_sym_await, mozjs_anon_sym_async, mozjs_sym_identifier,
      mozjs_anon_sym_static, mozjs_anon_sym_get, mozjs_anon_sym_set, 2524, 11,
      mozjs_anon_sym_STAR, mozjs_anon_sym_COMMA, mozjs_anon_sym_RBRACE, mozjs_anon_sym_SEMI,
      mozjs_anon_sym_LBRACK, mozjs_anon_sym_DQUOTE, mozjs_anon_sym_SQUOTE, mozjs_sym_number,
      mozjs_sym_private_property_identifier, mozjs_anon_sym_AT,
      mozjs_aux_sym_method_definition_token1]"

definition mozjs_small_run_45407 :: "nat list" where
  "mozjs_small_run_45407 =
    [3, 5, 2, mozjs_sym_html_comment, mozjs_sym_comment, 2553, 8, mozjs_anon_sym_export,
      mozjs_anon_sym_let, mozjs_anon_sym_await, mozjs_anon_sym_async, mozjs_sym_identifier,
      mozjs_anon_sym_static, mozjs_anon_sym_get, mozjs_anon_sym_set, 2555, 11,
      mozjs_anon_sym_STAR, mozjs_anon_sym_COMMA, mozjs_anon_sym_RBRACE, mozjs_anon_sym_SEMI,
      mozjs_anon_sym_LBRACK, mozjs_anon_sym_DQUOTE, mozjs_anon_sym_SQUOTE, mozjs_sym_number,
      mozjs_sym_private_property_identifier, mozjs_anon_sym_AT,
      mozjs_aux_sym_method_definition_token1]"

definition mozjs_small_run_45435 :: "nat list" where
  "mozjs_small_run_45435 =
    [3, 5, 2, mozjs_sym_html_comment, mozjs_sym_comment, 2518, 8, mozjs_anon_sym_export,
      mozjs_anon_sym_let, mozjs_anon_sym_await, mozjs_anon_sym_async, mozjs_sym_identifier,
      mozjs_anon_sym_static, mozjs_anon_sym_get, mozjs_anon_sym_set, 2520, 11,
      mozjs_anon_sym_STAR, mozjs_anon_sym_COMMA, mozjs_anon_sym_RBRACE, mozjs_anon_sym_SEMI,
      mozjs_anon_sym_LBRACK, mozjs_anon_sym_DQUOTE, mozjs_anon_sym_SQUOTE, mozjs_sym_number,
      mozjs_sym_private_property_identifier, mozjs_anon_sym_AT,
      mozjs_aux_sym_method_definition_token1]"

definition mozjs_small_run_45463 :: "nat list" where
  "mozjs_small_run_45463 =
    [3, 5, 2, mozjs_sym_html_comment, mozjs_sym_comment, 2518, 8, mozjs_anon_sym_export,
      mozjs_anon_sym_let, mozjs_anon_sym_await, mozjs_anon_sym_async, mozjs_sym_identifier,
      mozjs_anon_sym_static, mozjs_anon_sym_get, mozjs_anon_sym_set, 2520, 11,
      mozjs_anon_sym_STAR, mozjs_anon_sym_COMMA, mozjs_anon_sym_RBRACE, mozjs_anon_sym_SEMI,
      mozjs_anon_sym_LBRACK, mozjs_anon_sym_DQUOTE, mozjs_anon_sym_SQUOTE, mozjs_sym_number,
      mozjs_sym_private_property_identifier, mozjs_anon_sym_AT,
      mozjs_aux_sym_method_definition_token1]"

definition mozjs_small_run_45491 :: "nat list" where
  "mozjs_small_run_45491 =
    [14, 93, 1, mozjs_anon_sym_AT, 941, 1, mozjs_anon_sym_var, 945, 1, mozjs_anon_sym_using, 947,
      1, mozjs_anon_sym_await, 952, 1, mozjs_anon_sym_class, 954, 1, mozjs_anon_sym_async, 956,
      1, mozjs_anon_sym_function, 2557, 1, mozjs_anon_sym_default, 485, 1, mozjs_sym_declaration,
      1112, 1, mozjs_sym_decorator, 1355, 1, mozjs_aux_sym_export_statement_repeat1, 5, 2,
      mozjs_sym_html_comment, mozjs_sym_comment, 943, 2, mozjs_anon_sym_let,
      mozjs_anon_sym_const, 427, 6, mozjs_sym_variable_declaration,
      mozjs_sym_lexical_declaration, mozjs_sym_using_declaration, mozjs_sym_class_declaration,
      mozjs_sym_function_declaration, mozjs_sym_generator_function_declaration]"

definition mozjs_small_run_45541 :: "nat list" where
  "mozjs_small_run_45541 =
    [3, 5, 2, mozjs_sym_html_comment, mozjs_sym_comment, 2518, 8, mozjs_anon_sym_export,
      mozjs_anon_sym_let, mozjs_anon_sym_await, mozjs_anon_sym_async, mozjs_sym_identifier,
      mozjs_anon_sym_static, mozjs_anon_sym_get, mozjs_anon_sym_set, 2520, 11,
      mozjs_anon_sym_STAR, mozjs_anon_sym_COMMA, mozjs_anon_sym_RBRACE, mozjs_anon_sym_SEMI,
      mozjs_anon_sym_LBRACK, mozjs_anon_sym_DQUOTE, mozjs_anon_sym_SQUOTE, mozjs_sym_number,
      mozjs_sym_private_property_identifier, mozjs_anon_sym_AT,
      mozjs_aux_sym_method_definition_token1]"

definition mozjs_small_run_45569 :: "nat list" where
  "mozjs_small_run_45569 =
    [3, 5, 2, mozjs_sym_html_comment, mozjs_sym_comment, 2522, 8, mozjs_anon_sym_export,
      mozjs_anon_sym_let, mozjs_anon_sym_await, mozjs_anon_sym_async, mozjs_sym_identifier,
      mozjs_anon_sym_static, mozjs_anon_sym_get, mozjs_anon_sym_set, 2524, 11,
      mozjs_anon_sym_STAR, mozjs_anon_sym_COMMA, mozjs_anon_sym_RBRACE, mozjs_anon_sym_SEMI,
      mozjs_anon_sym_LBRACK, mozjs_anon_sym_DQUOTE, mozjs_anon_sym_SQUOTE, mozjs_sym_number,
      mozjs_sym_private_property_identifier, mozjs_anon_sym_AT,
      mozjs_aux_sym_method_definition_token1]"

definition mozjs_small_run_45597 :: "nat list" where
  "mozjs_small_run_45597 =
    [3, 5, 2, mozjs_sym_html_comment, mozjs_sym_comment, 2561, 9, mozjs_anon_sym_STAR,
      mozjs_anon_sym_LPAREN, mozjs_anon_sym_LBRACK, mozjs_anon_sym_DQUOTE, mozjs_anon_sym_SQUOTE,
      mozjs_sym_number, mozjs_sym_private_property_identifier, mozjs_anon_sym_AT,
      mozjs_aux_sym_method_definition_token1, 2559, 10, mozjs_anon_sym_export,
      mozjs_anon_sym_let, mozjs_anon_sym_await, mozjs_anon_sym_DOT, mozjs_anon_sym_class,
      mozjs_anon_sym_async, mozjs_sym_identifier, mozjs_anon_sym_static, mozjs_anon_sym_get,
      mozjs_anon_sym_set]"

definition mozjs_small_run_45625 :: "nat list" where
  "mozjs_small_run_45625 =
    [3, 5, 2, mozjs_sym_html_comment, mozjs_sym_comment, 2563, 8, mozjs_anon_sym_export,
      mozjs_anon_sym_let, mozjs_anon_sym_await, mozjs_anon_sym_async, mozjs_sym_identifier,
      mozjs_anon_sym_static, mozjs_anon_sym_get, mozjs_anon_sym_set, 2565, 11,
      mozjs_anon_sym_STAR, mozjs_anon_sym_COMMA, mozjs_anon_sym_RBRACE, mozjs_anon_sym_SEMI,
      mozjs_anon_sym_LBRACK, mozjs_anon_sym_DQUOTE, mozjs_anon_sym_SQUOTE, mozjs_sym_number,
      mozjs_sym_private_property_identifier, mozjs_anon_sym_AT,
      mozjs_aux_sym_method_definition_token1]"

definition mozjs_small_run_45653 :: "nat list" where
  "mozjs_small_run_45653 =
    [3, 5, 2, mozjs_sym_html_comment, mozjs_sym_comment, 2522, 8, mozjs_anon_sym_export,
      mozjs_anon_sym_let, mozjs_anon_sym_await, mozjs_anon_sym_async, mozjs_sym_identifier,
      mozjs_anon_sym_static, mozjs_anon_sym_get, mozjs_anon_sym_set, 2524, 11,
      mozjs_anon_sym_STAR, mozjs_anon_sym_COMMA, mozjs_anon_sym_RBRACE, mozjs_anon_sym_SEMI,
      mozjs_anon_sym_LBRACK, mozjs_anon_sym_DQUOTE, mozjs_anon_sym_SQUOTE, mozjs_sym_number,
      mozjs_sym_private_property_identifier, mozjs_anon_sym_AT,
      mozjs_aux_sym_method_definition_token1]"

definition mozjs_small_run_45681 :: "nat list" where
  "mozjs_small_run_45681 =
    [3, 5, 2, mozjs_sym_html_comment, mozjs_sym_comment, 2563, 8, mozjs_anon_sym_export,
      mozjs_anon_sym_let, mozjs_anon_sym_await, mozjs_anon_sym_async, mozjs_sym_identifier,
      mozjs_anon_sym_static, mozjs_anon_sym_get, mozjs_anon_sym_set, 2565, 11,
      mozjs_anon_sym_STAR, mozjs_anon_sym_COMMA, mozjs_anon_sym_RBRACE, mozjs_anon_sym_SEMI,
      mozjs_anon_sym_LBRACK, mozjs_anon_sym_DQUOTE, mozjs_anon_sym_SQUOTE, mozjs_sym_number,
      mozjs_sym_private_property_identifier, mozjs_anon_sym_AT,
      mozjs_aux_sym_method_definition_token1]"

definition mozjs_small_run_45709 :: "nat list" where
  "mozjs_small_run_45709 =
    [3, 5, 2, mozjs_sym_html_comment, mozjs_sym_comment, 2563, 8, mozjs_anon_sym_export,
      mozjs_anon_sym_let, mozjs_anon_sym_await, mozjs_anon_sym_async, mozjs_sym_identifier,
      mozjs_anon_sym_static, mozjs_anon_sym_get, mozjs_anon_sym_set, 2565, 11,
      mozjs_anon_sym_STAR, mozjs_anon_sym_COMMA, mozjs_anon_sym_RBRACE, mozjs_anon_sym_SEMI,
      mozjs_anon_sym_LBRACK, mozjs_anon_sym_DQUOTE, mozjs_anon_sym_SQUOTE, mozjs_sym_number,
      mozjs_sym_private_property_identifier, mozjs_anon_sym_AT,
      mozjs_aux_sym_method_definition_token1]"

definition mozjs_small_run_45737 :: "nat list" where
  "mozjs_small_run_45737 =
    [3, 5, 2, mozjs_sym_html_comment, mozjs_sym_comment, 2518, 8, mozjs_anon_sym_export,
      mozjs_anon_sym_let, mozjs_anon_sym_await, mozjs_anon_sym_async, mozjs_sym_identifier,
      mozjs_anon_sym_static, mozjs_anon_sym_get, mozjs_anon_sym_set, 2520, 11,
      mozjs_anon_sym_STAR, mozjs_anon_sym_COMMA, mozjs_anon_sym_RBRACE, mozjs_anon_sym_SEMI,
      mozjs_anon_sym_LBRACK, mozjs_anon_sym_DQUOTE, mozjs_anon_sym_SQUOTE, mozjs_sym_number,
      mozjs_sym_private_property_identifier, mozjs_anon_sym_AT,
      mozjs_aux_sym_method_definition_token1]"

definition mozjs_small_run_45765 :: "nat list" where
  "mozjs_small_run_45765 =
    [3, 5, 2, mozjs_sym_html_comment, mozjs_sym_comment, 2563, 8, mozjs_anon_sym_export,
      mozjs_anon_sym_let, mozjs_anon_sym_await, mozjs_anon_sym_async, mozjs_sym_identifier,
      mozjs_anon_sym_static, mozjs_anon_sym_get, mozjs_anon_sym_set, 2565, 11,
      mozjs_anon_sym_STAR, mozjs_anon_sym_COMMA, mozjs_anon_sym_RBRACE, mozjs_anon_sym_SEMI,
      mozjs_anon_sym_LBRACK, mozjs_anon_sym_DQUOTE, mozjs_anon_sym_SQUOTE, mozjs_sym_number,
      mozjs_sym_private_property_identifier, mozjs_anon_sym_AT,
      mozjs_aux_sym_method_definition_token1]"

definition mozjs_small_run_45793 :: "nat list" where
  "mozjs_small_run_45793 =
    [3, 5, 2, mozjs_sym_html_comment, mozjs_sym_comment, 2518, 8, mozjs_anon_sym_export,
      mozjs_anon_sym_let, mozjs_anon_sym_await, mozjs_anon_sym_async, mozjs_sym_identifier,
      mozjs_anon_sym_static, mozjs_anon_sym_get, mozjs_anon_sym_set, 2520, 11,
      mozjs_anon_sym_STAR, mozjs_anon_sym_COMMA, mozjs_anon_sym_RBRACE, mozjs_anon_sym_SEMI,
      mozjs_anon_sym_LBRACK, mozjs_anon_sym_DQUOTE, mozjs_anon_sym_SQUOTE, mozjs_sym_number,
      mozjs_sym_private_property_identifier, mozjs_anon_sym_AT,
      mozjs_aux_sym_method_definition_token1]"

definition mozjs_small_run_45821 :: "nat list" where
  "mozjs_small_run_45821 =
    [3, 5, 2, mozjs_sym_html_comment, mozjs_sym_comment, 2563, 8, mozjs_anon_sym_export,
      mozjs_anon_sym_let, mozjs_anon_sym_await, mozjs_anon_sym_async, mozjs_sym_identifier,
      mozjs_anon_sym_static, mozjs_anon_sym_get, mozjs_anon_sym_set, 2565, 11,
      mozjs_anon_sym_STAR, mozjs_anon_sym_COMMA, mozjs_anon_sym_RBRACE, mozjs_anon_sym_SEMI,
      mozjs_anon_sym_LBRACK, mozjs_anon_sym_DQUOTE, mozjs_anon_sym_SQUOTE, mozjs_sym_number,
      mozjs_sym_private_property_identifier, mozjs_anon_sym_AT,
      mozjs_aux_sym_method_definition_token1]"

definition mozjs_small_run_45849 :: "nat list" where
  "mozjs_small_run_45849 =
    [3, 5, 2, mozjs_sym_html_comment, mozjs_sym_comment, 2563, 8, mozjs_anon_sym_export,
      mozjs_anon_sym_let, mozjs_anon_sym_await, mozjs_anon_sym_async, mozjs_sym_identifier,
      mozjs_anon_sym_static, mozjs_anon_sym_get, mozjs_anon_sym_set, 2565, 11,
      mozjs_anon_sym_STAR, mozjs_anon_sym_COMMA, mozjs_anon_sym_RBRACE, mozjs_anon_sym_SEMI,
      mozjs_anon_sym_LBRACK, mozjs_anon_sym_DQUOTE, mozjs_anon_sym_SQUOTE, mozjs_sym_number,
      mozjs_sym_private_property_identifier, mozjs_anon_sym_AT,
      mozjs_aux_sym_method_definition_token1]"

definition mozjs_small_run_45877 :: "nat list" where
  "mozjs_small_run_45877 =
    [11, 1084, 1, mozjs_anon_sym_DQUOTE, 1086, 1, mozjs_anon_sym_SQUOTE, 2286, 1,
      mozjs_anon_sym_LBRACK, 2404, 1, mozjs_anon_sym_LPAREN, 2567, 1, mozjs_anon_sym_STAR, 2571,
      1, mozjs_anon_sym_get, 2573, 1, mozjs_anon_sym_set, 5, 2, mozjs_sym_html_comment,
      mozjs_sym_comment, 2569, 2, mozjs_sym_number, mozjs_sym_private_property_identifier, 1566,
      3, mozjs_sym_string, mozjs_sym__property_name, mozjs_sym_computed_property_name, 1094, 6,
      mozjs_anon_sym_export, mozjs_anon_sym_let, mozjs_anon_sym_await, mozjs_anon_sym_async,
      mozjs_sym_identifier, mozjs_anon_sym_static]"

definition mozjs_small_run_45920 :: "nat list" where
  "mozjs_small_run_45920 =
    [3, 5, 2, mozjs_sym_html_comment, mozjs_sym_comment, 705, 8, mozjs_anon_sym_export,
      mozjs_anon_sym_let, mozjs_anon_sym_await, mozjs_anon_sym_async, mozjs_sym_identifier,
      mozjs_anon_sym_static, mozjs_anon_sym_get, mozjs_anon_sym_set, 703, 10,
      mozjs_anon_sym_STAR, mozjs_anon_sym_RBRACE, mozjs_anon_sym_SEMI, mozjs_anon_sym_LBRACK,
      mozjs_anon_sym_DQUOTE, mozjs_anon_sym_SQUOTE, mozjs_sym_number,
      mozjs_sym_private_property_identifier, mozjs_anon_sym_AT,
      mozjs_aux_sym_method_definition_token1]"

definition mozjs_small_run_45947 :: "nat list" where
  "mozjs_small_run_45947 =
    [10, 1084, 1, mozjs_anon_sym_DQUOTE, 1086, 1, mozjs_anon_sym_SQUOTE, 2286, 1,
      mozjs_anon_sym_LBRACK, 2404, 1, mozjs_anon_sym_LPAREN, 2494, 1, mozjs_anon_sym_STAR, 5, 2,
      mozjs_sym_html_comment, mozjs_sym_comment, 2496, 2, mozjs_sym_number,
      mozjs_sym_private_property_identifier, 2498, 2, mozjs_anon_sym_get, mozjs_anon_sym_set,
      1582, 3, mozjs_sym_string, mozjs_sym__property_name, mozjs_sym_computed_property_name,
      1094, 6, mozjs_anon_sym_export, mozjs_anon_sym_let, mozjs_anon_sym_await,
      mozjs_anon_sym_async, mozjs_sym_identifier, mozjs_anon_sym_static]"

definition mozjs_small_run_45988 :: "nat list" where
  "mozjs_small_run_45988 =
    [10, 1084, 1, mozjs_anon_sym_DQUOTE, 1086, 1, mozjs_anon_sym_SQUOTE, 2286, 1,
      mozjs_anon_sym_LBRACK, 2404, 1, mozjs_anon_sym_LPAREN, 2575, 1, mozjs_anon_sym_STAR, 5, 2,
      mozjs_sym_html_comment, mozjs_sym_comment, 2577, 2, mozjs_sym_number,
      mozjs_sym_private_property_identifier, 2579, 2, mozjs_anon_sym_get, mozjs_anon_sym_set,
      1628, 3, mozjs_sym_string, mozjs_sym__property_name, mozjs_sym_computed_property_name,
      1094, 6, mozjs_anon_sym_export, mozjs_anon_sym_let, mozjs_anon_sym_await,
      mozjs_anon_sym_async, mozjs_sym_identifier, mozjs_anon_sym_static]"

definition mozjs_small_run_46029 :: "nat list" where
  "mozjs_small_run_46029 =
    [3, 5, 2, mozjs_sym_html_comment, mozjs_sym_comment, 2581, 8, mozjs_anon_sym_export,
      mozjs_anon_sym_let, mozjs_anon_sym_await, mozjs_anon_sym_async, mozjs_sym_identifier,
      mozjs_anon_sym_static, mozjs_anon_sym_get, mozjs_anon_sym_set, 2583, 10,
      mozjs_anon_sym_STAR, mozjs_anon_sym_RBRACE, mozjs_anon_sym_SEMI, mozjs_anon_sym_LBRACK,
      mozjs_anon_sym_DQUOTE, mozjs_anon_sym_SQUOTE, mozjs_sym_number,
      mozjs_sym_private_property_identifier, mozjs_anon_sym_AT,
      mozjs_aux_sym_method_definition_token1]"

definition mozjs_small_run_46056 :: "nat list" where
  "mozjs_small_run_46056 =
    [11, 1084, 1, mozjs_anon_sym_DQUOTE, 1086, 1, mozjs_anon_sym_SQUOTE, 2286, 1,
      mozjs_anon_sym_LBRACK, 2404, 1, mozjs_anon_sym_LPAREN, 2585, 1, mozjs_anon_sym_STAR, 2589,
      1, mozjs_anon_sym_get, 2591, 1, mozjs_anon_sym_set, 5, 2, mozjs_sym_html_comment,
      mozjs_sym_comment, 2587, 2, mozjs_sym_number, mozjs_sym_private_property_identifier, 1604,
      3, mozjs_sym_string, mozjs_sym__property_name, mozjs_sym_computed_property_name, 1094, 6,
      mozjs_anon_sym_export, mozjs_anon_sym_let, mozjs_anon_sym_await, mozjs_anon_sym_async,
      mozjs_sym_identifier, mozjs_anon_sym_static]"

definition mozjs_small_run_46099 :: "nat list" where
  "mozjs_small_run_46099 =
    [11, 1084, 1, mozjs_anon_sym_DQUOTE, 1086, 1, mozjs_anon_sym_SQUOTE, 2286, 1,
      mozjs_anon_sym_LBRACK, 2404, 1, mozjs_anon_sym_LPAREN, 2593, 1, mozjs_anon_sym_STAR, 2597,
      1, mozjs_anon_sym_get, 2599, 1, mozjs_anon_sym_set, 5, 2, mozjs_sym_html_comment,
      mozjs_sym_comment, 2595, 2, mozjs_sym_number, mozjs_sym_private_property_identifier, 1652,
      3, mozjs_sym_string, mozjs_sym__property_name, mozjs_sym_computed_property_name, 1094, 6,
      mozjs_anon_sym_export, mozjs_anon_sym_let, mozjs_anon_sym_await, mozjs_anon_sym_async,
      mozjs_sym_identifier, mozjs_anon_sym_static]"

definition mozjs_small_run_46142 :: "nat list" where
  "mozjs_small_run_46142 =
    [12, 1084, 1, mozjs_anon_sym_DQUOTE, 1086, 1, mozjs_anon_sym_SQUOTE, 2286, 1,
      mozjs_anon_sym_LBRACK, 2404, 1, mozjs_anon_sym_LPAREN, 2601, 1, mozjs_anon_sym_STAR, 2603,
      1, mozjs_anon_sym_async, 2607, 1, mozjs_anon_sym_get, 2609, 1, mozjs_anon_sym_set, 5, 2,
      mozjs_sym_html_comment, mozjs_sym_comment, 2605, 2, mozjs_sym_number,
      mozjs_sym_private_property_identifier, 1656, 3, mozjs_sym_string, mozjs_sym__property_name,
      mozjs_sym_computed_property_name, 1094, 5, mozjs_anon_sym_export, mozjs_anon_sym_let,
      mozjs_anon_sym_await, mozjs_sym_identifier, mozjs_anon_sym_static]"

definition mozjs_small_run_46187 :: "nat list" where
  "mozjs_small_run_46187 =
    [3, 5, 2, mozjs_sym_html_comment, mozjs_sym_comment, 2611, 8, mozjs_anon_sym_export,
      mozjs_anon_sym_let, mozjs_anon_sym_await, mozjs_anon_sym_async, mozjs_sym_identifier,
      mozjs_anon_sym_static, mozjs_anon_sym_get, mozjs_anon_sym_set, 2613, 10,
      mozjs_anon_sym_STAR, mozjs_anon_sym_RBRACE, mozjs_anon_sym_SEMI, mozjs_anon_sym_LBRACK,
      mozjs_anon_sym_DQUOTE, mozjs_anon_sym_SQUOTE, mozjs_sym_number,
      mozjs_sym_private_property_identifier, mozjs_anon_sym_AT,
      mozjs_aux_sym_method_definition_token1]"

definition mozjs_small_run_46214 :: "nat list" where
  "mozjs_small_run_46214 =
    [3, 5, 2, mozjs_sym_html_comment, mozjs_sym_comment, 715, 8, mozjs_anon_sym_export,
      mozjs_anon_sym_let, mozjs_anon_sym_await, mozjs_anon_sym_async, mozjs_sym_identifier,
      mozjs_anon_sym_static, mozjs_anon_sym_get, mozjs_anon_sym_set, 713, 10,
      mozjs_anon_sym_STAR, mozjs_anon_sym_RBRACE, mozjs_anon_sym_SEMI, mozjs_anon_sym_LBRACK,
      mozjs_anon_sym_DQUOTE, mozjs_anon_sym_SQUOTE, mozjs_sym_number,
      mozjs_sym_private_property_identifier, mozjs_anon_sym_AT,
      mozjs_aux_sym_method_definition_token1]"

definition mozjs_small_run_46241 :: "nat list" where
  "mozjs_small_run_46241 =
    [11, 1084, 1, mozjs_anon_sym_DQUOTE, 1086, 1, mozjs_anon_sym_SQUOTE, 2286, 1,
      mozjs_anon_sym_LBRACK, 2404, 1, mozjs_anon_sym_LPAREN, 2615, 1, mozjs_anon_sym_STAR, 2619,
      1, mozjs_anon_sym_get, 2621, 1, mozjs_anon_sym_set, 5, 2, mozjs_sym_html_comment,
      mozjs_sym_comment, 2617, 2, mozjs_sym_number, mozjs_sym_private_property_identifier, 1573,
      3, mozjs_sym_string, mozjs_sym__property_name, mozjs_sym_computed_property_name, 1094, 6,
      mozjs_anon_sym_export, mozjs_anon_sym_let, mozjs_anon_sym_await, mozjs_anon_sym_async,
      mozjs_sym_identifier, mozjs_anon_sym_static]"

definition mozjs_small_run_46284 :: "nat list" where
  "mozjs_small_run_46284 =
    [3, 5, 2, mozjs_sym_html_comment, mozjs_sym_comment, 2623, 8, mozjs_anon_sym_export,
      mozjs_anon_sym_let, mozjs_anon_sym_await, mozjs_anon_sym_async, mozjs_sym_identifier,
      mozjs_anon_sym_static, mozjs_anon_sym_get, mozjs_anon_sym_set, 2625, 10,
      mozjs_anon_sym_STAR, mozjs_anon_sym_RBRACE, mozjs_anon_sym_SEMI, mozjs_anon_sym_LBRACK,
      mozjs_anon_sym_DQUOTE, mozjs_anon_sym_SQUOTE, mozjs_sym_number,
      mozjs_sym_private_property_identifier, mozjs_anon_sym_AT,
      mozjs_aux_sym_method_definition_token1]"

definition mozjs_small_run_46311 :: "nat list" where
  "mozjs_small_run_46311 =
    [3, 5, 2, mozjs_sym_html_comment, mozjs_sym_comment, 2627, 8, mozjs_anon_sym_export,
      mozjs_anon_sym_let, mozjs_anon_sym_await, mozjs_anon_sym_async, mozjs_sym_identifier,
      mozjs_anon_sym_static, mozjs_anon_sym_get, mozjs_anon_sym_set, 2629, 10,
      mozjs_anon_sym_STAR, mozjs_anon_sym_RBRACE, mozjs_anon_sym_SEMI, mozjs_anon_sym_LBRACK,
      mozjs_anon_sym_DQUOTE, mozjs_anon_sym_SQUOTE, mozjs_sym_number,
      mozjs_sym_private_property_identifier, mozjs_anon_sym_AT,
      mozjs_aux_sym_method_definition_token1]"

definition mozjs_small_run_46338 :: "nat list" where
  "mozjs_small_run_46338 =
    [4, 2631, 1, mozjs_anon_sym_SEMI, 5, 2, mozjs_sym_html_comment, mozjs_sym_comment, 2627, 8,
      mozjs_anon_sym_export, mozjs_anon_sym_let, mozjs_anon_sym_await, mozjs_anon_sym_async,
      mozjs_sym_identifier, mozjs_anon_sym_static, mozjs_anon_sym_get, mozjs_anon_sym_set, 2629,
      9, mozjs_anon_sym_STAR, mozjs_anon_sym_RBRACE, mozjs_anon_sym_LBRACK,
      mozjs_anon_sym_DQUOTE, mozjs_anon_sym_SQUOTE, mozjs_sym_number,
      mozjs_sym_private_property_identifier, mozjs_anon_sym_AT,
      mozjs_aux_sym_method_definition_token1]"

definition mozjs_small_run_46367 :: "nat list" where
  "mozjs_small_run_46367 =
    [9, 1084, 1, mozjs_anon_sym_DQUOTE, 1086, 1, mozjs_anon_sym_SQUOTE, 2286, 1,
      mozjs_anon_sym_LBRACK, 2404, 1, mozjs_anon_sym_LPAREN, 2634, 1, mozjs_anon_sym_EQ_GT, 5, 2,
      mozjs_sym_html_comment, mozjs_sym_comment, 2577, 2, mozjs_sym_number,
      mozjs_sym_private_property_identifier, 1628, 3, mozjs_sym_string, mozjs_sym__property_name,
      mozjs_sym_computed_property_name, 1094, 8, mozjs_anon_sym_export, mozjs_anon_sym_let,
      mozjs_anon_sym_await, mozjs_anon_sym_async, mozjs_sym_identifier, mozjs_anon_sym_static,
      mozjs_anon_sym_get, mozjs_anon_sym_set]"

definition mozjs_small_run_46406 :: "nat list" where
  "mozjs_small_run_46406 =
    [8, 1084, 1, mozjs_anon_sym_DQUOTE, 1086, 1, mozjs_anon_sym_SQUOTE, 2286, 1,
      mozjs_anon_sym_LBRACK, 2404, 1, mozjs_anon_sym_LPAREN, 5, 2, mozjs_sym_html_comment,
      mozjs_sym_comment, 2636, 2, mozjs_sym_number, mozjs_sym_private_property_identifier, 1615,
      3, mozjs_sym_string, mozjs_sym__property_name, mozjs_sym_computed_property_name, 1094, 8,
      mozjs_anon_sym_export, mozjs_anon_sym_let, mozjs_anon_sym_await, mozjs_anon_sym_async,
      mozjs_sym_identifier, mozjs_anon_sym_static, mozjs_anon_sym_get, mozjs_anon_sym_set]"

definition mozjs_small_run_46442 :: "nat list" where
  "mozjs_small_run_46442 =
    [8, 1084, 1, mozjs_anon_sym_DQUOTE, 1086, 1, mozjs_anon_sym_SQUOTE, 2286, 1,
      mozjs_anon_sym_LBRACK, 2404, 1, mozjs_anon_sym_LPAREN, 5, 2, mozjs_sym_html_comment,
      mozjs_sym_comment, 2638, 2, mozjs_sym_number, mozjs_sym_private_property_identifier, 1709,
      3, mozjs_sym_string, mozjs_sym__property_name, mozjs_sym_computed_property_name, 1094, 8,
      mozjs_anon_sym_export, mozjs_anon_sym_let, mozjs_anon_sym_await, mozjs_anon_sym_async,
      mozjs_sym_identifier, mozjs_anon_sym_static, mozjs_anon_sym_get, mozjs_anon_sym_set]"

definition mozjs_small_run_46478 :: "nat list" where
  "mozjs_small_run_46478 =
    [8, 1084, 1, mozjs_anon_sym_DQUOTE, 1086, 1, mozjs_anon_sym_SQUOTE, 2286, 1,
      mozjs_anon_sym_LBRACK, 2404, 1, mozjs_anon_sym_LPAREN, 5, 2, mozjs_sym_html_comment,
      mozjs_sym_comment, 2640, 2, mozjs_sym_number, mozjs_sym_private_property_identifier, 1710,
      3, mozjs_sym_string, mozjs_sym__property_name, mozjs_sym_computed_property_name, 1094, 8,
      mozjs_anon_sym_export, mozjs_anon_sym_let, mozjs_anon_sym_await, mozjs_anon_sym_async,
      mozjs_sym_identifier, mozjs_anon_sym_static, mozjs_anon_sym_get, mozjs_anon_sym_set]"

definition mozjs_small_run_46514 :: "nat list" where
  "mozjs_small_run_46514 =
    [8, 1084, 1, mozjs_anon_sym_DQUOTE, 1086, 1, mozjs_anon_sym_SQUOTE, 2286, 1,
      mozjs_anon_sym_LBRACK, 2404, 1, mozjs_anon_sym_LPAREN, 5, 2, mozjs_sym_html_comment,
      mozjs_sym_comment, 2642, 2, mozjs_sym_number, mozjs_sym_private_property_identifier, 1730,
      3, mozjs_sym_string, mozjs_sym__property_name, mozjs_sym_computed_property_name, 1094, 8,
      mozjs_anon_sym_export, mozjs_anon_sym_let, mozjs_anon_sym_await, mozjs_anon_sym_async,
      mozjs_sym_identifier, mozjs_anon_sym_static, mozjs_anon_sym_get, mozjs_anon_sym_set]"

definition mozjs_small_run_46550 :: "nat list" where
  "mozjs_small_run_46550 =
    [8, 1084, 1, mozjs_anon_sym_DQUOTE, 1086, 1, mozjs_anon_sym_SQUOTE, 2286, 1,
      mozjs_anon_sym_LBRACK, 2404, 1, mozjs_anon_sym_LPAREN, 5, 2, mozjs_sym_html_comment,
      mozjs_sym_comment, 2644, 2, mozjs_sym_number, mozjs_sym_private_property_identifier, 1732,
      3, mozjs_sym_string, mozjs_sym__property_name, mozjs_sym_computed_property_name, 1094, 8,
      mozjs_anon_sym_export, mozjs_anon_sym_let, mozjs_anon_sym_await, mozjs_anon_sym_async,
      mozjs_sym_identifier, mozjs_anon_sym_static, mozjs_anon_sym_get, mozjs_anon_sym_set]"

definition mozjs_small_run_46586 :: "nat list" where
  "mozjs_small_run_46586 =
    [3, 5, 2, mozjs_sym_html_comment, mozjs_sym_comment, 2504, 8, mozjs_anon_sym_STAR,
      mozjs_anon_sym_LBRACK, mozjs_anon_sym_DQUOTE, mozjs_anon_sym_SQUOTE, mozjs_sym_number,
      mozjs_sym_private_property_identifier, mozjs_anon_sym_AT,
      mozjs_aux_sym_method_definition_token1, 2502, 9, mozjs_anon_sym_export, mozjs_anon_sym_let,
      mozjs_anon_sym_await, mozjs_anon_sym_class, mozjs_anon_sym_async, mozjs_sym_identifier,
      mozjs_anon_sym_static, mozjs_anon_sym_get, mozjs_anon_sym_set]"

definition mozjs_small_run_46612 :: "nat list" where
  "mozjs_small_run_46612 =
    [8, 1084, 1, mozjs_anon_sym_DQUOTE, 1086, 1, mozjs_anon_sym_SQUOTE, 2286, 1,
      mozjs_anon_sym_LBRACK, 2404, 1, mozjs_anon_sym_LPAREN, 5, 2, mozjs_sym_html_comment,
      mozjs_sym_comment, 2577, 2, mozjs_sym_number, mozjs_sym_private_property_identifier, 1628,
      3, mozjs_sym_string, mozjs_sym__property_name, mozjs_sym_computed_property_name, 1094, 8,
      mozjs_anon_sym_export, mozjs_anon_sym_let, mozjs_anon_sym_await, mozjs_anon_sym_async,
      mozjs_sym_identifier, mozjs_anon_sym_static, mozjs_anon_sym_get, mozjs_anon_sym_set]"

definition mozjs_small_run_46648 :: "nat list" where
  "mozjs_small_run_46648 =
    [8, 1084, 1, mozjs_anon_sym_DQUOTE, 1086, 1, mozjs_anon_sym_SQUOTE, 2286, 1,
      mozjs_anon_sym_LBRACK, 2404, 1, mozjs_anon_sym_LPAREN, 5, 2, mozjs_sym_html_comment,
      mozjs_sym_comment, 2646, 2, mozjs_sym_number, mozjs_sym_private_property_identifier, 1550,
      3, mozjs_sym_string, mozjs_sym__property_name, mozjs_sym_computed_property_name, 1094, 8,
      mozjs_anon_sym_export, mozjs_anon_sym_let, mozjs_anon_sym_await, mozjs_anon_sym_async,
      mozjs_sym_identifier, mozjs_anon_sym_static, mozjs_anon_sym_get, mozjs_anon_sym_set]"

definition mozjs_small_run_46684 :: "nat list" where
  "mozjs_small_run_46684 =
    [8, 1084, 1, mozjs_anon_sym_DQUOTE, 1086, 1, mozjs_anon_sym_SQUOTE, 2286, 1,
      mozjs_anon_sym_LBRACK, 2404, 1, mozjs_anon_sym_LPAREN, 5, 2, mozjs_sym_html_comment,
      mozjs_sym_comment, 2648, 2, mozjs_sym_number, mozjs_sym_private_property_identifier, 1555,
      3, mozjs_sym_string, mozjs_sym__property_name, mozjs_sym_computed_property_name, 1094, 8,
      mozjs_anon_sym_export, mozjs_anon_sym_let, mozjs_anon_sym_await, mozjs_anon_sym_async,
      mozjs_sym_identifier, mozjs_anon_sym_static, mozjs_anon_sym_get, mozjs_anon_sym_set]"

definition mozjs_small_run_46720 :: "nat list" where
  "mozjs_small_run_46720 =
    [8, 1084, 1, mozjs_anon_sym_DQUOTE, 1086, 1, mozjs_anon_sym_SQUOTE, 2286, 1,
      mozjs_anon_sym_LBRACK, 2404, 1, mozjs_anon_sym_LPAREN, 5, 2, mozjs_sym_html_comment,
      mozjs_sym_comment, 2650, 2, mozjs_sym_number, mozjs_sym_private_property_identifier, 1556,
      3, mozjs_sym_string, mozjs_sym__property_name, mozjs_sym_computed_property_name, 1094, 8,
      mozjs_anon_sym_export, mozjs_anon_sym_let, mozjs_anon_sym_await, mozjs_anon_sym_async,
      mozjs_sym_identifier, mozjs_anon_sym_static, mozjs_anon_sym_get, mozjs_anon_sym_set]"

definition mozjs_small_run_46756 :: "nat list" where
  "mozjs_small_run_46756 =
    [8, 1084, 1, mozjs_anon_sym_DQUOTE, 1086, 1, mozjs_anon_sym_SQUOTE, 2286, 1,
      mozjs_anon_sym_LBRACK, 2404, 1, mozjs_anon_sym_LPAREN, 5, 2, mozjs_sym_html_comment,
      mozjs_sym_comment, 2652, 2, mozjs_sym_number, mozjs_sym_private_property_identifier, 1567,
      3, mozjs_sym_string, mozjs_sym__property_name, mozjs_sym_computed_property_name, 1094, 8,
      mozjs_anon_sym_export, mozjs_anon_sym_let, mozjs_anon_sym_await, mozjs_anon_sym_async,
      mozjs_sym_identifier, mozjs_anon_sym_static, mozjs_anon_sym_get, mozjs_anon_sym_set]"

definition mozjs_small_run_46792 :: "nat list" where
  "mozjs_small_run_46792 =
    [8, 1084, 1, mozjs_anon_sym_DQUOTE, 1086, 1, mozjs_anon_sym_SQUOTE, 2286, 1,
      mozjs_anon_sym_LBRACK, 2404, 1, mozjs_anon_sym_LPAREN, 5, 2, mozjs_sym_html_comment,
      mozjs_sym_comment, 2654, 2, mozjs_sym_number, mozjs_sym_private_property_identifier, 1568,
      3, mozjs_sym_string, mozjs_sym__property_name, mozjs_sym_computed_property_name, 1094, 8,
      mozjs_anon_sym_export, mozjs_anon_sym_let, mozjs_anon_sym_await, mozjs_anon_sym_async,
      mozjs_sym_identifier, mozjs_anon_sym_static, mozjs_anon_sym_get, mozjs_anon_sym_set]"

definition mozjs_small_run_46828 :: "nat list" where
  "mozjs_small_run_46828 =
    [11, 1084, 1, mozjs_anon_sym_DQUOTE, 1086, 1, mozjs_anon_sym_SQUOTE, 2286, 1,
      mozjs_anon_sym_LBRACK, 2656, 1, mozjs_anon_sym_STAR, 2658, 1, mozjs_anon_sym_async, 2662,
      1, mozjs_anon_sym_get, 2664, 1, mozjs_anon_sym_set, 5, 2, mozjs_sym_html_comment,
      mozjs_sym_comment, 2660, 2, mozjs_sym_number, mozjs_sym_private_property_identifier, 1677,
      3, mozjs_sym_string, mozjs_sym__property_name, mozjs_sym_computed_property_name, 1094, 5,
      mozjs_anon_sym_export, mozjs_anon_sym_let, mozjs_anon_sym_await, mozjs_sym_identifier,
      mozjs_anon_sym_static]"

definition mozjs_small_run_46870 :: "nat list" where
  "mozjs_small_run_46870 =
    [8, 1084, 1, mozjs_anon_sym_DQUOTE, 1086, 1, mozjs_anon_sym_SQUOTE, 2286, 1,
      mozjs_anon_sym_LBRACK, 2404, 1, mozjs_anon_sym_LPAREN, 5, 2, mozjs_sym_html_comment,
      mozjs_sym_comment, 2666, 2, mozjs_sym_number, mozjs_sym_private_property_identifier, 1679,
      3, mozjs_sym_string, mozjs_sym__property_name, mozjs_sym_computed_property_name, 1094, 8,
      mozjs_anon_sym_export, mozjs_anon_sym_let, mozjs_anon_sym_await, mozjs_anon_sym_async,
      mozjs_sym_identifier, mozjs_anon_sym_static, mozjs_anon_sym_get, mozjs_anon_sym_set]"

definition mozjs_small_run_46906 :: "nat list" where
  "mozjs_small_run_46906 =
    [8, 1084, 1, mozjs_anon_sym_DQUOTE, 1086, 1, mozjs_anon_sym_SQUOTE, 2286, 1,
      mozjs_anon_sym_LBRACK, 2404, 1, mozjs_anon_sym_LPAREN, 5, 2, mozjs_sym_html_comment,
      mozjs_sym_comment, 2668, 2, mozjs_sym_number, mozjs_sym_private_property_identifier, 1680,
      3, mozjs_sym_string, mozjs_sym__property_name, mozjs_sym_computed_property_name, 1094, 8,
      mozjs_anon_sym_export, mozjs_anon_sym_let, mozjs_anon_sym_await, mozjs_anon_sym_async,
      mozjs_sym_identifier, mozjs_anon_sym_static, mozjs_anon_sym_get, mozjs_anon_sym_set]"

definition mozjs_small_run_46942 :: "nat list" where
  "mozjs_small_run_46942 =
    [8, 1084, 1, mozjs_anon_sym_DQUOTE, 1086, 1, mozjs_anon_sym_SQUOTE, 2286, 1,
      mozjs_anon_sym_LBRACK, 2404, 1, mozjs_anon_sym_LPAREN, 5, 2, mozjs_sym_html_comment,
      mozjs_sym_comment, 2670, 2, mozjs_sym_number, mozjs_sym_private_property_identifier, 1574,
      3, mozjs_sym_string, mozjs_sym__property_name, mozjs_sym_computed_property_name, 1094, 8,
      mozjs_anon_sym_export, mozjs_anon_sym_let, mozjs_anon_sym_await, mozjs_anon_sym_async,
      mozjs_sym_identifier, mozjs_anon_sym_static, mozjs_anon_sym_get, mozjs_anon_sym_set]"

definition mozjs_small_run_46978 :: "nat list" where
  "mozjs_small_run_46978 =
    [10, 1084, 1, mozjs_anon_sym_DQUOTE, 1086, 1, mozjs_anon_sym_SQUOTE, 1096, 1,
      mozjs_anon_sym_async, 2286, 1, mozjs_anon_sym_LBRACK, 2400, 1, mozjs_anon_sym_STAR, 5, 2,
      mozjs_sym_html_comment, mozjs_sym_comment, 1090, 2, mozjs_sym_number,
      mozjs_sym_private_property_identifier, 1098, 2, mozjs_anon_sym_get, mozjs_anon_sym_set,
      1545, 3, mozjs_sym_string, mozjs_sym__property_name, mozjs_sym_computed_property_name,
      1094, 5, mozjs_anon_sym_export, mozjs_anon_sym_let, mozjs_anon_sym_await,
      mozjs_sym_identifier, mozjs_anon_sym_static]"

definition mozjs_small_run_47018 :: "nat list" where
  "mozjs_small_run_47018 =
    [3, 5, 2, mozjs_sym_html_comment, mozjs_sym_comment, 1712, 8, mozjs_anon_sym_STAR,
      mozjs_anon_sym_LBRACK, mozjs_anon_sym_DQUOTE, mozjs_anon_sym_SQUOTE, mozjs_sym_number,
      mozjs_sym_private_property_identifier, mozjs_anon_sym_AT,
      mozjs_aux_sym_method_definition_token1, 1710, 9, mozjs_anon_sym_export, mozjs_anon_sym_let,
      mozjs_anon_sym_await, mozjs_anon_sym_class, mozjs_anon_sym_async, mozjs_sym_identifier,
      mozjs_anon_sym_static, mozjs_anon_sym_get, mozjs_anon_sym_set]"

definition mozjs_small_run_47044 :: "nat list" where
  "mozjs_small_run_47044 =
    [3, 5, 2, mozjs_sym_html_comment, mozjs_sym_comment, 1610, 8, mozjs_anon_sym_STAR,
      mozjs_anon_sym_LBRACK, mozjs_anon_sym_DQUOTE, mozjs_anon_sym_SQUOTE, mozjs_sym_number,
      mozjs_sym_private_property_identifier, mozjs_anon_sym_AT,
      mozjs_aux_sym_method_definition_token1, 1608, 9, mozjs_anon_sym_export, mozjs_anon_sym_let,
      mozjs_anon_sym_await, mozjs_anon_sym_class, mozjs_anon_sym_async, mozjs_sym_identifier,
      mozjs_anon_sym_static, mozjs_anon_sym_get, mozjs_anon_sym_set]"

definition mozjs_small_run_47070 :: "nat list" where
  "mozjs_small_run_47070 =
    [3, 5, 2, mozjs_sym_html_comment, mozjs_sym_comment, 1663, 8, mozjs_anon_sym_STAR,
      mozjs_anon_sym_LBRACK, mozjs_anon_sym_DQUOTE, mozjs_anon_sym_SQUOTE, mozjs_sym_number,
      mozjs_sym_private_property_identifier, mozjs_anon_sym_AT,
      mozjs_aux_sym_method_definition_token1, 1661, 9, mozjs_anon_sym_export, mozjs_anon_sym_let,
      mozjs_anon_sym_await, mozjs_anon_sym_class, mozjs_anon_sym_async, mozjs_sym_identifier,
      mozjs_anon_sym_static, mozjs_anon_sym_get, mozjs_anon_sym_set]"

definition mozjs_small_run_47096 :: "nat list" where
  "mozjs_small_run_47096 =
    [3, 5, 2, mozjs_sym_html_comment, mozjs_sym_comment, 2674, 8, mozjs_anon_sym_STAR,
      mozjs_anon_sym_LBRACK, mozjs_anon_sym_DQUOTE, mozjs_anon_sym_SQUOTE, mozjs_sym_number,
      mozjs_sym_private_property_identifier, mozjs_anon_sym_AT,
      mozjs_aux_sym_method_definition_token1, 2672, 9, mozjs_anon_sym_export, mozjs_anon_sym_let,
      mozjs_anon_sym_await, mozjs_anon_sym_class, mozjs_anon_sym_async, mozjs_sym_identifier,
      mozjs_anon_sym_static, mozjs_anon_sym_get, mozjs_anon_sym_set]"

definition mozjs_small_run_47122 :: "nat list" where
  "mozjs_small_run_47122 =
    [3, 5, 2, mozjs_sym_html_comment, mozjs_sym_comment, 2678, 8, mozjs_anon_sym_STAR,
      mozjs_anon_sym_LBRACK, mozjs_anon_sym_DQUOTE, mozjs_anon_sym_SQUOTE, mozjs_sym_number,
      mozjs_sym_private_property_identifier, mozjs_anon_sym_AT,
      mozjs_aux_sym_method_definition_token1, 2676, 9, mozjs_anon_sym_export, mozjs_anon_sym_let,
      mozjs_anon_sym_await, mozjs_anon_sym_class, mozjs_anon_sym_async, mozjs_sym_identifier,
      mozjs_anon_sym_static, mozjs_anon_sym_get, mozjs_anon_sym_set]"

definition mozjs_small_run_47148 :: "nat list" where
  "mozjs_small_run_47148 =
    [10, 1084, 1, mozjs_anon_sym_DQUOTE, 1086, 1, mozjs_anon_sym_SQUOTE, 2286, 1,
      mozjs_anon_sym_LBRACK, 2412, 1, mozjs_anon_sym_STAR, 2680, 1, mozjs_anon_sym_async, 5, 2,
      mozjs_sym_html_comment, mozjs_sym_comment, 2476, 2, mozjs_sym_number,
      mozjs_sym_private_property_identifier, 2478, 2, mozjs_anon_sym_get, mozjs_anon_sym_set,
      1557, 3, mozjs_sym_string, mozjs_sym__property_name, mozjs_sym_computed_property_name,
      1094, 5, mozjs_anon_sym_export, mozjs_anon_sym_let, mozjs_anon_sym_await,
      mozjs_sym_identifier, mozjs_anon_sym_static]"

definition mozjs_small_run_47188 :: "nat list" where
  "mozjs_small_run_47188 =
    [8, 1084, 1, mozjs_anon_sym_DQUOTE, 1086, 1, mozjs_anon_sym_SQUOTE, 2286, 1,
      mozjs_anon_sym_LBRACK, 2404, 1, mozjs_anon_sym_LPAREN, 5, 2, mozjs_sym_html_comment,
      mozjs_sym_comment, 2496, 2, mozjs_sym_number, mozjs_sym_private_property_identifier, 1582,
      3, mozjs_sym_string, mozjs_sym__property_name, mozjs_sym_computed_property_name, 1094, 8,
      mozjs_anon_sym_export, mozjs_anon_sym_let, mozjs_anon_sym_await, mozjs_anon_sym_async,
      mozjs_sym_identifier, mozjs_anon_sym_static, mozjs_anon_sym_get, mozjs_anon_sym_set]"

definition mozjs_small_run_47224 :: "nat list" where
  "mozjs_small_run_47224 =
    [11, 1084, 1, mozjs_anon_sym_DQUOTE, 1086, 1, mozjs_anon_sym_SQUOTE, 2286, 1,
      mozjs_anon_sym_LBRACK, 2682, 1, mozjs_anon_sym_STAR, 2684, 1, mozjs_anon_sym_async, 2688,
      1, mozjs_anon_sym_get, 2690, 1, mozjs_anon_sym_set, 5, 2, mozjs_sym_html_comment,
      mozjs_sym_comment, 2686, 2, mozjs_sym_number, mozjs_sym_private_property_identifier, 1585,
      3, mozjs_sym_string, mozjs_sym__property_name, mozjs_sym_computed_property_name, 1094, 5,
      mozjs_anon_sym_export, mozjs_anon_sym_let, mozjs_anon_sym_await, mozjs_sym_identifier,
      mozjs_anon_sym_static]"

definition mozjs_small_run_47266 :: "nat list" where
  "mozjs_small_run_47266 =
    [8, 1084, 1, mozjs_anon_sym_DQUOTE, 1086, 1, mozjs_anon_sym_SQUOTE, 2286, 1,
      mozjs_anon_sym_LBRACK, 2404, 1, mozjs_anon_sym_LPAREN, 5, 2, mozjs_sym_html_comment,
      mozjs_sym_comment, 2692, 2, mozjs_sym_number, mozjs_sym_private_property_identifier, 1595,
      3, mozjs_sym_string, mozjs_sym__property_name, mozjs_sym_computed_property_name, 1094, 8,
      mozjs_anon_sym_export, mozjs_anon_sym_let, mozjs_anon_sym_await, mozjs_anon_sym_async,
      mozjs_sym_identifier, mozjs_anon_sym_static, mozjs_anon_sym_get, mozjs_anon_sym_set]"

definition mozjs_small_run_47302 :: "nat list" where
  "mozjs_small_run_47302 =
    [8, 1084, 1, mozjs_anon_sym_DQUOTE, 1086, 1, mozjs_anon_sym_SQUOTE, 2286, 1,
      mozjs_anon_sym_LBRACK, 2404, 1, mozjs_anon_sym_LPAREN, 5, 2, mozjs_sym_html_comment,
      mozjs_sym_comment, 2694, 2, mozjs_sym_number, mozjs_sym_private_property_identifier, 1597,
      3, mozjs_sym_string, mozjs_sym__property_name, mozjs_sym_computed_property_name, 1094, 8,
      mozjs_anon_sym_export, mozjs_anon_sym_let, mozjs_anon_sym_await, mozjs_anon_sym_async,
      mozjs_sym_identifier, mozjs_anon_sym_static, mozjs_anon_sym_get, mozjs_anon_sym_set]"

definition mozjs_small_run_47338 :: "nat list" where
  "mozjs_small_run_47338 =
    [8, 1084, 1, mozjs_anon_sym_DQUOTE, 1086, 1, mozjs_anon_sym_SQUOTE, 2286, 1,
      mozjs_anon_sym_LBRACK, 2404, 1, mozjs_anon_sym_LPAREN, 5, 2, mozjs_sym_html_comment,
      mozjs_sym_comment, 2696, 2, mozjs_sym_number, mozjs_sym_private_property_identifier, 1598,
      3, mozjs_sym_string, mozjs_sym__property_name, mozjs_sym_computed_property_name, 1094, 8,
      mozjs_anon_sym_export, mozjs_anon_sym_let, mozjs_anon_sym_await, mozjs_anon_sym_async,
      mozjs_sym_identifier, mozjs_anon_sym_static, mozjs_anon_sym_get, mozjs_anon_sym_set]"

definition mozjs_small_run_47374 :: "nat list" where
  "mozjs_small_run_47374 =
    [8, 1084, 1, mozjs_anon_sym_DQUOTE, 1086, 1, mozjs_anon_sym_SQUOTE, 2286, 1,
      mozjs_anon_sym_LBRACK, 2404, 1, mozjs_anon_sym_LPAREN, 5, 2, mozjs_sym_html_comment,
      mozjs_sym_comment, 2698, 2, mozjs_sym_number, mozjs_sym_private_property_identifier, 1605,
      3, mozjs_sym_string, mozjs_sym__property_name, mozjs_sym_computed_property_name, 1094, 8,
      mozjs_anon_sym_export, mozjs_anon_sym_let, mozjs_anon_sym_await, mozjs_anon_sym_async,
      mozjs_sym_identifier, mozjs_anon_sym_static, mozjs_anon_sym_get, mozjs_anon_sym_set]"

definition mozjs_small_run_47410 :: "nat list" where
  "mozjs_small_run_47410 =
    [8, 1084, 1, mozjs_anon_sym_DQUOTE, 1086, 1, mozjs_anon_sym_SQUOTE, 2286, 1,
      mozjs_anon_sym_LBRACK, 2404, 1, mozjs_anon_sym_LPAREN, 5, 2, mozjs_sym_html_comment,
      mozjs_sym_comment, 2700, 2, mozjs_sym_number, mozjs_sym_private_property_identifier, 1606,
      3, mozjs_sym_string, mozjs_sym__property_name, mozjs_sym_computed_property_name, 1094, 8,
      mozjs_anon_sym_export, mozjs_anon_sym_let, mozjs_anon_sym_await, mozjs_anon_sym_async,
      mozjs_sym_identifier, mozjs_anon_sym_static, mozjs_anon_sym_get, mozjs_anon_sym_set]"

definition mozjs_small_run_47446 :: "nat list" where
  "mozjs_small_run_47446 =
    [8, 1084, 1, mozjs_anon_sym_DQUOTE, 1086, 1, mozjs_anon_sym_SQUOTE, 2286, 1,
      mozjs_anon_sym_LBRACK, 2404, 1, mozjs_anon_sym_LPAREN, 5, 2, mozjs_sym_html_comment,
      mozjs_sym_comment, 2702, 2, mozjs_sym_number, mozjs_sym_private_property_identifier, 1612,
      3, mozjs_sym_string, mozjs_sym__property_name, mozjs_sym_computed_property_name, 1094, 8,
      mozjs_anon_sym_export, mozjs_anon_sym_let, mozjs_anon_sym_await, mozjs_anon_sym_async,
      mozjs_sym_identifier, mozjs_anon_sym_static, mozjs_anon_sym_get, mozjs_anon_sym_set]"

definition mozjs_small_run_47482 :: "nat list" where
  "mozjs_small_run_47482 =
    [8, 1084, 1, mozjs_anon_sym_DQUOTE, 1086, 1, mozjs_anon_sym_SQUOTE, 2286, 1,
      mozjs_anon_sym_LBRACK, 2404, 1, mozjs_anon_sym_LPAREN, 5, 2, mozjs_sym_html_comment,
      mozjs_sym_comment, 2704, 2, mozjs_sym_number, mozjs_sym_private_property_identifier, 1613,
      3, mozjs_sym_string, mozjs_sym__property_name, mozjs_sym_computed_property_name, 1094, 8,
      mozjs_anon_sym_export, mozjs_anon_sym_let, mozjs_anon_sym_await, mozjs_anon_sym_async,
      mozjs_sym_identifier, mozjs_anon_sym_static, mozjs_anon_sym_get, mozjs_anon_sym_set]"

definition mozjs_small_run_47518 :: "nat list" where
  "mozjs_small_run_47518 =
    [8, 1084, 1, mozjs_anon_sym_DQUOTE, 1086, 1, mozjs_anon_sym_SQUOTE, 2286, 1,
      mozjs_anon_sym_LBRACK, 2404, 1, mozjs_anon_sym_LPAREN, 5, 2, mozjs_sym_html_comment,
      mozjs_sym_comment, 2706, 2, mozjs_sym_number, mozjs_sym_private_property_identifier, 1616,
      3, mozjs_sym_string, mozjs_sym__property_name, mozjs_sym_computed_property_name, 1094, 8,
      mozjs_anon_sym_export, mozjs_anon_sym_let, mozjs_anon_sym_await, mozjs_anon_sym_async,
      mozjs_sym_identifier, mozjs_anon_sym_static, mozjs_anon_sym_get, mozjs_anon_sym_set]"

definition mozjs_small_run_47554 :: "nat list" where
  "mozjs_small_run_47554 =
    [8, 1084, 1, mozjs_anon_sym_DQUOTE, 1086, 1, mozjs_anon_sym_SQUOTE, 2286, 1,
      mozjs_anon_sym_LBRACK, 2404, 1, mozjs_anon_sym_LPAREN, 5, 2, mozjs_sym_html_comment,
      mozjs_sym_comment, 2708, 2, mozjs_sym_number, mozjs_sym_private_property_identifier, 1575,
      3, mozjs_sym_string, mozjs_sym__property_name, mozjs_sym_computed_property_name, 1094, 8,
      mozjs_anon_sym_export, mozjs_anon_sym_let, mozjs_anon_sym_await, mozjs_anon_sym_async,
      mozjs_sym_identifier, mozjs_anon_sym_static, mozjs_anon_sym_get, mozjs_anon_sym_set]"

definition mozjs_small_run_47590 :: "nat list" where
  "mozjs_small_run_47590 =
    [7, 1084, 1, mozjs_anon_sym_DQUOTE, 1086, 1, mozjs_anon_sym_SQUOTE, 2286, 1,
      mozjs_anon_sym_LBRACK, 5, 2, mozjs_sym_html_comment, mozjs_sym_comment, 2710, 2,
      mozjs_sym_number, mozjs_sym_private_property_identifier, 1603, 3, mozjs_sym_string,
      mozjs_sym__property_name, mozjs_sym_computed_property_name, 1094, 8, mozjs_anon_sym_export,
      mozjs_anon_sym_let, mozjs_anon_sym_await, mozjs_anon_sym_async, mozjs_sym_identifier,
      mozjs_anon_sym_static, mozjs_anon_sym_get, mozjs_anon_sym_set]"

definition mozjs_small_run_47623 :: "nat list" where
  "mozjs_small_run_47623 =
    [7, 1084, 1, mozjs_anon_sym_DQUOTE, 1086, 1, mozjs_anon_sym_SQUOTE, 2286, 1,
      mozjs_anon_sym_LBRACK, 5, 2, mozjs_sym_html_comment, mozjs_sym_comment, 2712, 2,
      mozjs_sym_number, mozjs_sym_private_property_identifier, 1649, 3, mozjs_sym_string,
      mozjs_sym__property_name, mozjs_sym_computed_property_name, 1094, 8, mozjs_anon_sym_export,
      mozjs_anon_sym_let, mozjs_anon_sym_await, mozjs_anon_sym_async, mozjs_sym_identifier,
      mozjs_anon_sym_static, mozjs_anon_sym_get, mozjs_anon_sym_set]"

definition mozjs_small_run_47656 :: "nat list" where
  "mozjs_small_run_47656 =
    [7, 1084, 1, mozjs_anon_sym_DQUOTE, 1086, 1, mozjs_anon_sym_SQUOTE, 2286, 1,
      mozjs_anon_sym_LBRACK, 5, 2, mozjs_sym_html_comment, mozjs_sym_comment, 2714, 2,
      mozjs_sym_number, mozjs_sym_private_property_identifier, 1583, 3, mozjs_sym_string,
      mozjs_sym__property_name, mozjs_sym_computed_property_name, 1094, 8, mozjs_anon_sym_export,
      mozjs_anon_sym_let, mozjs_anon_sym_await, mozjs_anon_sym_async, mozjs_sym_identifier,
      mozjs_anon_sym_static, mozjs_anon_sym_get, mozjs_anon_sym_set]"

definition mozjs_small_run_47689 :: "nat list" where
  "mozjs_small_run_47689 =
    [7, 1084, 1, mozjs_anon_sym_DQUOTE, 1086, 1, mozjs_anon_sym_SQUOTE, 2286, 1,
      mozjs_anon_sym_LBRACK, 5, 2, mozjs_sym_html_comment, mozjs_sym_comment, 2496, 2,
      mozjs_sym_number, mozjs_sym_private_property_identifier, 1582, 3, mozjs_sym_string,
      mozjs_sym__property_name, mozjs_sym_computed_property_name, 1094, 8, mozjs_anon_sym_export,
      mozjs_anon_sym_let, mozjs_anon_sym_await, mozjs_anon_sym_async, mozjs_sym_identifier,
      mozjs_anon_sym_static, mozjs_anon_sym_get, mozjs_anon_sym_set]"

definition mozjs_small_run_47722 :: "nat list" where
  "mozjs_small_run_47722 =
    [7, 1084, 1, mozjs_anon_sym_DQUOTE, 1086, 1, mozjs_anon_sym_SQUOTE, 2286, 1,
      mozjs_anon_sym_LBRACK, 5, 2, mozjs_sym_html_comment, mozjs_sym_comment, 2476, 2,
      mozjs_sym_number, mozjs_sym_private_property_identifier, 1557, 3, mozjs_sym_string,
      mozjs_sym__property_name, mozjs_sym_computed_property_name, 1094, 8, mozjs_anon_sym_export,
      mozjs_anon_sym_let, mozjs_anon_sym_await, mozjs_anon_sym_async, mozjs_sym_identifier,
      mozjs_anon_sym_static, mozjs_anon_sym_get, mozjs_anon_sym_set]"

definition mozjs_small_run_47755 :: "nat list" where
  "mozjs_small_run_47755 =
    [7, 1084, 1, mozjs_anon_sym_DQUOTE, 1086, 1, mozjs_anon_sym_SQUOTE, 2286, 1,
      mozjs_anon_sym_LBRACK, 5, 2, mozjs_sym_html_comment, mozjs_sym_comment, 2716, 2,
      mozjs_sym_number, mozjs_sym_private_property_identifier, 1708, 3, mozjs_sym_string,
      mozjs_sym__property_name, mozjs_sym_computed_property_name, 1094, 8, mozjs_anon_sym_export,
      mozjs_anon_sym_let, mozjs_anon_sym_await, mozjs_anon_sym_async, mozjs_sym_identifier,
      mozjs_anon_sym_static, mozjs_anon_sym_get, mozjs_anon_sym_set]"

definition mozjs_small_run_47788 :: "nat list" where
  "mozjs_small_run_47788 =
    [7, 1084, 1, mozjs_anon_sym_DQUOTE, 1086, 1, mozjs_anon_sym_SQUOTE, 2286, 1,
      mozjs_anon_sym_LBRACK, 5, 2, mozjs_sym_html_comment, mozjs_sym_comment, 2718, 2,
      mozjs_sym_number, mozjs_sym_private_property_identifier, 1570, 3, mozjs_sym_string,
      mozjs_sym__property_name, mozjs_sym_computed_property_name, 1094, 8, mozjs_anon_sym_export,
      mozjs_anon_sym_let, mozjs_anon_sym_await, mozjs_anon_sym_async, mozjs_sym_identifier,
      mozjs_anon_sym_static, mozjs_anon_sym_get, mozjs_anon_sym_set]"

definition mozjs_small_run_47821 :: "nat list" where
  "mozjs_small_run_47821 =
    [7, 1084, 1, mozjs_anon_sym_DQUOTE, 1086, 1, mozjs_anon_sym_SQUOTE, 2286, 1,
      mozjs_anon_sym_LBRACK, 5, 2, mozjs_sym_html_comment, mozjs_sym_comment, 2692, 2,
      mozjs_sym_number, mozjs_sym_private_property_identifier, 1595, 3, mozjs_sym_string,
      mozjs_sym__property_name, mozjs_sym_computed_property_name, 1094, 8, mozjs_anon_sym_export,
      mozjs_anon_sym_let, mozjs_anon_sym_await, mozjs_anon_sym_async, mozjs_sym_identifier,
      mozjs_anon_sym_static, mozjs_anon_sym_get, mozjs_anon_sym_set]"

definition mozjs_small_run_47854 :: "nat list" where
  "mozjs_small_run_47854 =
    [7, 1084, 1, mozjs_anon_sym_DQUOTE, 1086, 1, mozjs_anon_sym_SQUOTE, 2286, 1,
      mozjs_anon_sym_LBRACK, 5, 2, mozjs_sym_html_comment, mozjs_sym_comment, 2720, 2,
      mozjs_sym_number, mozjs_sym_private_property_identifier, 1554, 3, mozjs_sym_string,
      mozjs_sym__property_name, mozjs_sym_computed_property_name, 1094, 8, mozjs_anon_sym_export,
      mozjs_anon_sym_let, mozjs_anon_sym_await, mozjs_anon_sym_async, mozjs_sym_identifier,
      mozjs_anon_sym_static, mozjs_anon_sym_get, mozjs_anon_sym_set]"

definition mozjs_small_run_47887 :: "nat list" where
  "mozjs_small_run_47887 =
    [7, 1084, 1, mozjs_anon_sym_DQUOTE, 1086, 1, mozjs_anon_sym_SQUOTE, 2286, 1,
      mozjs_anon_sym_LBRACK, 5, 2, mozjs_sym_html_comment, mozjs_sym_comment, 2722, 2,
      mozjs_sym_number, mozjs_sym_private_property_identifier, 1596, 3, mozjs_sym_string,
      mozjs_sym__property_name, mozjs_sym_computed_property_name, 1094, 8, mozjs_anon_sym_export,
      mozjs_anon_sym_let, mozjs_anon_sym_await, mozjs_anon_sym_async, mozjs_sym_identifier,
      mozjs_anon_sym_static, mozjs_anon_sym_get, mozjs_anon_sym_set]"

definition mozjs_small_run_47920 :: "nat list" where
  "mozjs_small_run_47920 =
    [7, 1084, 1, mozjs_anon_sym_DQUOTE, 1086, 1, mozjs_anon_sym_SQUOTE, 2286, 1,
      mozjs_anon_sym_LBRACK, 5, 2, mozjs_sym_html_comment, mozjs_sym_comment, 2724, 2,
      mozjs_sym_number, mozjs_sym_private_property_identifier, 1729, 3, mozjs_sym_string,
      mozjs_sym__property_name, mozjs_sym_computed_property_name, 1094, 8, mozjs_anon_sym_export,
      mozjs_anon_sym_let, mozjs_anon_sym_await, mozjs_anon_sym_async, mozjs_sym_identifier,
      mozjs_anon_sym_static, mozjs_anon_sym_get, mozjs_anon_sym_set]"

definition mozjs_small_run_47953 :: "nat list" where
  "mozjs_small_run_47953 =
    [7, 1084, 1, mozjs_anon_sym_DQUOTE, 1086, 1, mozjs_anon_sym_SQUOTE, 2286, 1,
      mozjs_anon_sym_LBRACK, 5, 2, mozjs_sym_html_comment, mozjs_sym_comment, 2726, 2,
      mozjs_sym_number, mozjs_sym_private_property_identifier, 1561, 3, mozjs_sym_string,
      mozjs_sym__property_name, mozjs_sym_computed_property_name, 1094, 8, mozjs_anon_sym_export,
      mozjs_anon_sym_let, mozjs_anon_sym_await, mozjs_anon_sym_async, mozjs_sym_identifier,
      mozjs_anon_sym_static, mozjs_anon_sym_get, mozjs_anon_sym_set]"

definition mozjs_small_run_47986 :: "nat list" where
  "mozjs_small_run_47986 =
    [7, 1084, 1, mozjs_anon_sym_DQUOTE, 1086, 1, mozjs_anon_sym_SQUOTE, 2286, 1,
      mozjs_anon_sym_LBRACK, 5, 2, mozjs_sym_html_comment, mozjs_sym_comment, 2728, 2,
      mozjs_sym_number, mozjs_sym_private_property_identifier, 1599, 3, mozjs_sym_string,
      mozjs_sym__property_name, mozjs_sym_computed_property_name, 1094, 8, mozjs_anon_sym_export,
      mozjs_anon_sym_let, mozjs_anon_sym_await, mozjs_anon_sym_async, mozjs_sym_identifier,
      mozjs_anon_sym_static, mozjs_anon_sym_get, mozjs_anon_sym_set]"

definition mozjs_small_run_48019 :: "nat list" where
  "mozjs_small_run_48019 =
    [7, 1084, 1, mozjs_anon_sym_DQUOTE, 1086, 1, mozjs_anon_sym_SQUOTE, 2286, 1,
      mozjs_anon_sym_LBRACK, 5, 2, mozjs_sym_html_comment, mozjs_sym_comment, 2577, 2,
      mozjs_sym_number, mozjs_sym_private_property_identifier, 1628, 3, mozjs_sym_string,
      mozjs_sym__property_name, mozjs_sym_computed_property_name, 1094, 8, mozjs_anon_sym_export,
      mozjs_anon_sym_let, mozjs_anon_sym_await, mozjs_anon_sym_async, mozjs_sym_identifier,
      mozjs_anon_sym_static, mozjs_anon_sym_get, mozjs_anon_sym_set]"

definition mozjs_small_run_48052 :: "nat list" where
  "mozjs_small_run_48052 =
    [7, 1084, 1, mozjs_anon_sym_DQUOTE, 1086, 1, mozjs_anon_sym_SQUOTE, 2286, 1,
      mozjs_anon_sym_LBRACK, 5, 2, mozjs_sym_html_comment, mozjs_sym_comment, 2730, 2,
      mozjs_sym_number, mozjs_sym_private_property_identifier, 1611, 3, mozjs_sym_string,
      mozjs_sym__property_name, mozjs_sym_computed_property_name, 1094, 8, mozjs_anon_sym_export,
      mozjs_anon_sym_let, mozjs_anon_sym_await, mozjs_anon_sym_async, mozjs_sym_identifier,
      mozjs_anon_sym_static, mozjs_anon_sym_get, mozjs_anon_sym_set]"

definition mozjs_small_run_48085 :: "nat list" where
  "mozjs_small_run_48085 =
    [7, 1084, 1, mozjs_anon_sym_DQUOTE, 1086, 1, mozjs_anon_sym_SQUOTE, 2286, 1,
      mozjs_anon_sym_LBRACK, 5, 2, mozjs_sym_html_comment, mozjs_sym_comment, 1090, 2,
      mozjs_sym_number, mozjs_sym_private_property_identifier, 1545, 3, mozjs_sym_string,
      mozjs_sym__property_name, mozjs_sym_computed_property_name, 1094, 8, mozjs_anon_sym_export,
      mozjs_anon_sym_let, mozjs_anon_sym_await, mozjs_anon_sym_async, mozjs_sym_identifier,
      mozjs_anon_sym_static, mozjs_anon_sym_get, mozjs_anon_sym_set]"

definition mozjs_small_run_48118 :: "nat list" where
  "mozjs_small_run_48118 =
    [7, 1084, 1, mozjs_anon_sym_DQUOTE, 1086, 1, mozjs_anon_sym_SQUOTE, 2286, 1,
      mozjs_anon_sym_LBRACK, 5, 2, mozjs_sym_html_comment, mozjs_sym_comment, 2646, 2,
      mozjs_sym_number, mozjs_sym_private_property_identifier, 1550, 3, mozjs_sym_string,
      mozjs_sym__property_name, mozjs_sym_computed_property_name, 1094, 8, mozjs_anon_sym_export,
      mozjs_anon_sym_let, mozjs_anon_sym_await, mozjs_anon_sym_async, mozjs_sym_identifier,
      mozjs_anon_sym_static, mozjs_anon_sym_get, mozjs_anon_sym_set]"

definition mozjs_small_run_48151 :: "nat list" where
  "mozjs_small_run_48151 =
    [7, 1084, 1, mozjs_anon_sym_DQUOTE, 1086, 1, mozjs_anon_sym_SQUOTE, 2286, 1,
      mozjs_anon_sym_LBRACK, 5, 2, mozjs_sym_html_comment, mozjs_sym_comment, 2732, 2,
      mozjs_sym_number, mozjs_sym_private_property_identifier, 1614, 3, mozjs_sym_string,
      mozjs_sym__property_name, mozjs_sym_computed_property_name, 1094, 8, mozjs_anon_sym_export,
      mozjs_anon_sym_let, mozjs_anon_sym_await, mozjs_anon_sym_async, mozjs_sym_identifier,
      mozjs_anon_sym_static, mozjs_anon_sym_get, mozjs_anon_sym_set]"

definition mozjs_small_run_48184 :: "nat list" where
  "mozjs_small_run_48184 =
    [2, 5, 2, mozjs_sym_html_comment, mozjs_sym_comment, 2734, 15, mozjs_anon_sym_PLUS_EQ,
      mozjs_anon_sym_DASH_EQ, mozjs_anon_sym_STAR_EQ, mozjs_anon_sym_SLASH_EQ,
      mozjs_anon_sym_PERCENT_EQ, mozjs_anon_sym_CARET_EQ, mozjs_anon_sym_AMP_EQ,
      mozjs_anon_sym_PIPE_EQ, mozjs_anon_sym_GT_GT_EQ, mozjs_anon_sym_GT_GT_GT_EQ,
      mozjs_anon_sym_LT_LT_EQ, mozjs_anon_sym_STAR_STAR_EQ, mozjs_anon_sym_AMP_AMP_EQ,
      mozjs_anon_sym_PIPE_PIPE_EQ, mozjs_anon_sym_QMARK_QMARK_EQ]"

definition mozjs_small_run_48206 :: "nat list" where
  "mozjs_small_run_48206 =
    [2, 5, 2, mozjs_sym_html_comment, mozjs_sym_comment, 2736, 15, mozjs_anon_sym_PLUS_EQ,
      mozjs_anon_sym_DASH_EQ, mozjs_anon_sym_STAR_EQ, mozjs_anon_sym_SLASH_EQ,
      mozjs_anon_sym_PERCENT_EQ, mozjs_anon_sym_CARET_EQ, mozjs_anon_sym_AMP_EQ,
      mozjs_anon_sym_PIPE_EQ, mozjs_anon_sym_GT_GT_EQ, mozjs_anon_sym_GT_GT_GT_EQ,
      mozjs_anon_sym_LT_LT_EQ, mozjs_anon_sym_STAR_STAR_EQ, mozjs_anon_sym_AMP_AMP_EQ,
      mozjs_anon_sym_PIPE_PIPE_EQ, mozjs_anon_sym_QMARK_QMARK_EQ]"

definition mozjs_small_run_48228 :: "nat list" where
  "mozjs_small_run_48228 =
    [2, 5, 2, mozjs_sym_html_comment, mozjs_sym_comment, 2738, 15, mozjs_anon_sym_PLUS_EQ,
      mozjs_anon_sym_DASH_EQ, mozjs_anon_sym_STAR_EQ, mozjs_anon_sym_SLASH_EQ,
      mozjs_anon_sym_PERCENT_EQ, mozjs_anon_sym_CARET_EQ, mozjs_anon_sym_AMP_EQ,
      mozjs_anon_sym_PIPE_EQ, mozjs_anon_sym_GT_GT_EQ, mozjs_anon_sym_GT_GT_GT_EQ,
      mozjs_anon_sym_LT_LT_EQ, mozjs_anon_sym_STAR_STAR_EQ, mozjs_anon_sym_AMP_AMP_EQ,
      mozjs_anon_sym_PIPE_PIPE_EQ, mozjs_anon_sym_QMARK_QMARK_EQ]"

definition mozjs_small_run_48250 :: "nat list" where
  "mozjs_small_run_48250 =
    [2, 5, 2, mozjs_sym_html_comment, mozjs_sym_comment, 2740, 15, mozjs_anon_sym_PLUS_EQ,
      mozjs_anon_sym_DASH_EQ, mozjs_anon_sym_STAR_EQ, mozjs_anon_sym_SLASH_EQ,
      mozjs_anon_sym_PERCENT_EQ, mozjs_anon_sym_CARET_EQ, mozjs_anon_sym_AMP_EQ,
      mozjs_anon_sym_PIPE_EQ, mozjs_anon_sym_GT_GT_EQ, mozjs_anon_sym_GT_GT_GT_EQ,
      mozjs_anon_sym_LT_LT_EQ, mozjs_anon_sym_STAR_STAR_EQ, mozjs_anon_sym_AMP_AMP_EQ,
      mozjs_anon_sym_PIPE_PIPE_EQ, mozjs_anon_sym_QMARK_QMARK_EQ]"

definition mozjs_small_run_48272 :: "nat list" where
  "mozjs_small_run_48272 =
    [2, 5, 2, mozjs_sym_html_comment, mozjs_sym_comment, 2742, 15, mozjs_anon_sym_PLUS_EQ,
      mozjs_anon_sym_DASH_EQ, mozjs_anon_sym_STAR_EQ, mozjs_anon_sym_SLASH_EQ,
      mozjs_anon_sym_PERCENT_EQ, mozjs_anon_sym_CARET_EQ, mozjs_anon_sym_AMP_EQ,
      mozjs_anon_sym_PIPE_EQ, mozjs_anon_sym_GT_GT_EQ, mozjs_anon_sym_GT_GT_GT_EQ,
      mozjs_anon_sym_LT_LT_EQ, mozjs_anon_sym_STAR_STAR_EQ, mozjs_anon_sym_AMP_AMP_EQ,
      mozjs_anon_sym_PIPE_PIPE_EQ, mozjs_anon_sym_QMARK_QMARK_EQ]"

definition mozjs_small_run_48294 :: "nat list" where
  "mozjs_small_run_48294 =
    [2, 5, 2, mozjs_sym_html_comment, mozjs_sym_comment, 2744, 15, mozjs_anon_sym_PLUS_EQ,
      mozjs_anon_sym_DASH_EQ, mozjs_anon_sym_STAR_EQ, mozjs_anon_sym_SLASH_EQ,
      mozjs_anon_sym_PERCENT_EQ, mozjs_anon_sym_CARET_EQ, mozjs_anon_sym_AMP_EQ,
      mozjs_anon_sym_PIPE_EQ, mozjs_anon_sym_GT_GT_EQ, mozjs_anon_sym_GT_GT_GT_EQ,
      mozjs_anon_sym_LT_LT_EQ, mozjs_anon_sym_STAR_STAR_EQ, mozjs_anon_sym_AMP_AMP_EQ,
      mozjs_anon_sym_PIPE_PIPE_EQ, mozjs_anon_sym_QMARK_QMARK_EQ]"

definition mozjs_small_run_48316 :: "nat list" where
  "mozjs_small_run_48316 =
    [11, 2306, 1, mozjs_anon_sym_DQUOTE, 2308, 1, mozjs_anon_sym_SQUOTE, 2746, 1,
      mozjs_sym_identifier, 2748, 1, mozjs_anon_sym_STAR, 2750, 1, mozjs_anon_sym_LBRACE, 2754,
      1, mozjs_anon_sym_DOT, 1378, 1, mozjs_sym_string, 1513, 1, mozjs_sym_import_clause, 5, 2,
      mozjs_sym_html_comment, mozjs_sym_comment, 2752, 2, mozjs_anon_sym_LPAREN,
      mozjs_sym_optional_chain, 1768, 2, mozjs_sym_namespace_import, mozjs_sym_named_imports]"

definition mozjs_small_run_48353 :: "nat list" where
  "mozjs_small_run_48353 =
    [11, 2756, 1, mozjs_sym_identifier, 2758, 1, mozjs_anon_sym_LBRACE, 2760, 1,
      mozjs_anon_sym_COLON, 2762, 1, mozjs_anon_sym_GT, 2764, 1, mozjs_sym_jsx_identifier, 2766,
      1, mozjs_anon_sym_DOT, 2768, 1, mozjs_anon_sym_SLASH_GT, 1195, 1,
      mozjs_aux_sym_jsx_opening_element_repeat1, 1231, 1, mozjs_sym_jsx_namespace_name, 5, 2,
      mozjs_sym_html_comment, mozjs_sym_comment, 1321, 2, mozjs_sym_jsx_expression,
      mozjs_sym_jsx_attribute]"

definition mozjs_small_run_48389 :: "nat list" where
  "mozjs_small_run_48389 =
    [11, 2756, 1, mozjs_sym_identifier, 2758, 1, mozjs_anon_sym_LBRACE, 2760, 1,
      mozjs_anon_sym_COLON, 2762, 1, mozjs_anon_sym_GT, 2764, 1, mozjs_sym_jsx_identifier, 2766,
      1, mozjs_anon_sym_DOT, 2770, 1, mozjs_anon_sym_SLASH_GT, 1174, 1,
      mozjs_aux_sym_jsx_opening_element_repeat1, 1231, 1, mozjs_sym_jsx_namespace_name, 5, 2,
      mozjs_sym_html_comment, mozjs_sym_comment, 1321, 2, mozjs_sym_jsx_expression,
      mozjs_sym_jsx_attribute]"

definition mozjs_small_run_48425 :: "nat list" where
  "mozjs_small_run_48425 =
    [8, 2772, 1, mozjs_anon_sym_LBRACE, 2776, 1, mozjs_anon_sym_LT, 2778, 1,
      mozjs_anon_sym_LT_SLASH, 596, 1, mozjs_sym_jsx_closing_element, 1160, 1,
      mozjs_sym_jsx_opening_element, 5, 2, mozjs_sym_html_comment, mozjs_sym_comment, 2774, 2,
      mozjs_sym_jsx_text, mozjs_sym_html_character_reference, 1154, 4, mozjs_sym_jsx_element,
      mozjs_sym_jsx_expression, mozjs_sym_jsx_self_closing_element,
      mozjs_aux_sym_jsx_element_repeat1]"

definition mozjs_small_run_48455 :: "nat list" where
  "mozjs_small_run_48455 =
    [8, 2772, 1, mozjs_anon_sym_LBRACE, 2776, 1, mozjs_anon_sym_LT, 2782, 1,
      mozjs_anon_sym_LT_SLASH, 1160, 1, mozjs_sym_jsx_opening_element, 1299, 1,
      mozjs_sym_jsx_closing_element, 5, 2, mozjs_sym_html_comment, mozjs_sym_comment, 2780, 2,
      mozjs_sym_jsx_text, mozjs_sym_html_character_reference, 1167, 4, mozjs_sym_jsx_element,
      mozjs_sym_jsx_expression, mozjs_sym_jsx_self_closing_element,
      mozjs_aux_sym_jsx_element_repeat1]"

definition mozjs_small_run_48485 :: "nat list" where
  "mozjs_small_run_48485 =
    [8, 2772, 1, mozjs_anon_sym_LBRACE, 2776, 1, mozjs_anon_sym_LT, 2778, 1,
      mozjs_anon_sym_LT_SLASH, 643, 1, mozjs_sym_jsx_closing_element, 1160, 1,
      mozjs_sym_jsx_opening_element, 5, 2, mozjs_sym_html_comment, mozjs_sym_comment, 2780, 2,
      mozjs_sym_jsx_text, mozjs_sym_html_character_reference, 1167, 4, mozjs_sym_jsx_element,
      mozjs_sym_jsx_expression, mozjs_sym_jsx_self_closing_element,
      mozjs_aux_sym_jsx_element_repeat1]"

definition mozjs_small_run_48515 :: "nat list" where
  "mozjs_small_run_48515 =
    [11, 2756, 1, mozjs_sym_identifier, 2758, 1, mozjs_anon_sym_LBRACE, 2760, 1,
      mozjs_anon_sym_COLON, 2762, 1, mozjs_anon_sym_GT, 2764, 1, mozjs_sym_jsx_identifier, 2766,
      1, mozjs_anon_sym_DOT, 2784, 1, mozjs_anon_sym_SLASH_GT, 1184, 1,
      mozjs_aux_sym_jsx_opening_element_repeat1, 1231, 1, mozjs_sym_jsx_namespace_name, 5, 2,
      mozjs_sym_html_comment, mozjs_sym_comment, 1321, 2, mozjs_sym_jsx_expression,
      mozjs_sym_jsx_attribute]"

definition mozjs_small_run_48551 :: "nat list" where
  "mozjs_small_run_48551 =
    [8, 2772, 1, mozjs_anon_sym_LBRACE, 2776, 1, mozjs_anon_sym_LT, 2788, 1,
      mozjs_anon_sym_LT_SLASH, 1160, 1, mozjs_sym_jsx_opening_element, 1307, 1,
      mozjs_sym_jsx_closing_element, 5, 2, mozjs_sym_html_comment, mozjs_sym_comment, 2786, 2,
      mozjs_sym_jsx_text, mozjs_sym_html_character_reference, 1161, 4, mozjs_sym_jsx_element,
      mozjs_sym_jsx_expression, mozjs_sym_jsx_self_closing_element,
      mozjs_aux_sym_jsx_element_repeat1]"

definition mozjs_small_run_48581 :: "nat list" where
  "mozjs_small_run_48581 =
    [8, 2772, 1, mozjs_anon_sym_LBRACE, 2776, 1, mozjs_anon_sym_LT, 2790, 1,
      mozjs_anon_sym_LT_SLASH, 795, 1, mozjs_sym_jsx_closing_element, 1160, 1,
      mozjs_sym_jsx_opening_element, 5, 2, mozjs_sym_html_comment, mozjs_sym_comment, 2780, 2,
      mozjs_sym_jsx_text, mozjs_sym_html_character_reference, 1167, 4, mozjs_sym_jsx_element,
      mozjs_sym_jsx_expression, mozjs_sym_jsx_self_closing_element,
      mozjs_aux_sym_jsx_element_repeat1]"

definition mozjs_small_run_48611 :: "nat list" where
  "mozjs_small_run_48611 =
    [8, 2772, 1, mozjs_anon_sym_LBRACE, 2776, 1, mozjs_anon_sym_LT, 2790, 1,
      mozjs_anon_sym_LT_SLASH, 805, 1, mozjs_sym_jsx_closing_element, 1160, 1,
      mozjs_sym_jsx_opening_element, 5, 2, mozjs_sym_html_comment, mozjs_sym_comment, 2792, 2,
      mozjs_sym_jsx_text, mozjs_sym_html_character_reference, 1157, 4, mozjs_sym_jsx_element,
      mozjs_sym_jsx_expression, mozjs_sym_jsx_self_closing_element,
      mozjs_aux_sym_jsx_element_repeat1]"

definition mozjs_small_run_48641 :: "nat list" where
  "mozjs_small_run_48641 =
    [11, 2756, 1, mozjs_sym_identifier, 2758, 1, mozjs_anon_sym_LBRACE, 2760, 1,
      mozjs_anon_sym_COLON, 2762, 1, mozjs_anon_sym_GT, 2764, 1, mozjs_sym_jsx_identifier, 2766,
      1, mozjs_anon_sym_DOT, 2794, 1, mozjs_anon_sym_SLASH_GT, 1191, 1,
      mozjs_aux_sym_jsx_opening_element_repeat1, 1231, 1, mozjs_sym_jsx_namespace_name, 5, 2,
      mozjs_sym_html_comment, mozjs_sym_comment, 1321, 2, mozjs_sym_jsx_expression,
      mozjs_sym_jsx_attribute]"

definition mozjs_small_run_48677 :: "nat list" where
  "mozjs_small_run_48677 =
    [8, 2772, 1, mozjs_anon_sym_LBRACE, 2776, 1, mozjs_anon_sym_LT, 2782, 1,
      mozjs_anon_sym_LT_SLASH, 1160, 1, mozjs_sym_jsx_opening_element, 1293, 1,
      mozjs_sym_jsx_closing_element, 5, 2, mozjs_sym_html_comment, mozjs_sym_comment, 2796, 2,
      mozjs_sym_jsx_text, mozjs_sym_html_character_reference, 1153, 4, mozjs_sym_jsx_element,
      mozjs_sym_jsx_expression, mozjs_sym_jsx_self_closing_element,
      mozjs_aux_sym_jsx_element_repeat1]"

definition mozjs_small_run_48707 :: "nat list" where
  "mozjs_small_run_48707 =
    [8, 2772, 1, mozjs_anon_sym_LBRACE, 2776, 1, mozjs_anon_sym_LT, 2788, 1,
      mozjs_anon_sym_LT_SLASH, 1160, 1, mozjs_sym_jsx_opening_element, 1314, 1,
      mozjs_sym_jsx_closing_element, 5, 2, mozjs_sym_html_comment, mozjs_sym_comment, 2780, 2,
      mozjs_sym_jsx_text, mozjs_sym_html_character_reference, 1167, 4, mozjs_sym_jsx_element,
      mozjs_sym_jsx_expression, mozjs_sym_jsx_self_closing_element,
      mozjs_aux_sym_jsx_element_repeat1]"

definition mozjs_small_run_48737 :: "nat list" where
  "mozjs_small_run_48737 =
    [10, 2756, 1, mozjs_sym_identifier, 2758, 1, mozjs_anon_sym_LBRACE, 2762, 1,
      mozjs_anon_sym_GT, 2764, 1, mozjs_sym_jsx_identifier, 2766, 1, mozjs_anon_sym_DOT, 2784, 1,
      mozjs_anon_sym_SLASH_GT, 1185, 1, mozjs_aux_sym_jsx_opening_element_repeat1, 1231, 1,
      mozjs_sym_jsx_namespace_name, 5, 2, mozjs_sym_html_comment, mozjs_sym_comment, 1321, 2,
      mozjs_sym_jsx_expression, mozjs_sym_jsx_attribute]"

definition mozjs_small_run_48770 :: "nat list" where
  "mozjs_small_run_48770 =
    [10, 2756, 1, mozjs_sym_identifier, 2758, 1, mozjs_anon_sym_LBRACE, 2760, 1,
      mozjs_anon_sym_COLON, 2762, 1, mozjs_anon_sym_GT, 2764, 1, mozjs_sym_jsx_identifier, 2784,
      1, mozjs_anon_sym_SLASH_GT, 1178, 1, mozjs_aux_sym_jsx_opening_element_repeat1, 1231, 1,
      mozjs_sym_jsx_namespace_name, 5, 2, mozjs_sym_html_comment, mozjs_sym_comment, 1321, 2,
      mozjs_sym_jsx_expression, mozjs_sym_jsx_attribute]"

definition mozjs_small_run_48803 :: "nat list" where
  "mozjs_small_run_48803 =
    [10, 2756, 1, mozjs_sym_identifier, 2758, 1, mozjs_anon_sym_LBRACE, 2760, 1,
      mozjs_anon_sym_COLON, 2762, 1, mozjs_anon_sym_GT, 2764, 1, mozjs_sym_jsx_identifier, 2768,
      1, mozjs_anon_sym_SLASH_GT, 1171, 1, mozjs_aux_sym_jsx_opening_element_repeat1, 1231, 1,
      mozjs_sym_jsx_namespace_name, 5, 2, mozjs_sym_html_comment, mozjs_sym_comment, 1321, 2,
      mozjs_sym_jsx_expression, mozjs_sym_jsx_attribute]"

definition mozjs_small_run_48836 :: "nat list" where
  "mozjs_small_run_48836 =
    [10, 2756, 1, mozjs_sym_identifier, 2758, 1, mozjs_anon_sym_LBRACE, 2760, 1,
      mozjs_anon_sym_COLON, 2762, 1, mozjs_anon_sym_GT, 2764, 1, mozjs_sym_jsx_identifier, 2770,
      1, mozjs_anon_sym_SLASH_GT, 1173, 1, mozjs_aux_sym_jsx_opening_element_repeat1, 1231, 1,
      mozjs_sym_jsx_namespace_name, 5, 2, mozjs_sym_html_comment, mozjs_sym_comment, 1321, 2,
      mozjs_sym_jsx_expression, mozjs_sym_jsx_attribute]"

definition mozjs_small_run_48869 :: "nat list" where
  "mozjs_small_run_48869 =
    [10, 2756, 1, mozjs_sym_identifier, 2758, 1, mozjs_anon_sym_LBRACE, 2762, 1,
      mozjs_anon_sym_GT, 2764, 1, mozjs_sym_jsx_identifier, 2766, 1, mozjs_anon_sym_DOT, 2770, 1,
      mozjs_anon_sym_SLASH_GT, 1175, 1, mozjs_aux_sym_jsx_opening_element_repeat1, 1231, 1,
      mozjs_sym_jsx_namespace_name, 5, 2, mozjs_sym_html_comment, mozjs_sym_comment, 1321, 2,
      mozjs_sym_jsx_expression, mozjs_sym_jsx_attribute]"

definition mozjs_small_run_48902 :: "nat list" where
  "mozjs_small_run_48902 =
    [7, 2798, 1, mozjs_anon_sym_LBRACE, 2804, 1, mozjs_anon_sym_LT, 2807, 1,
      mozjs_anon_sym_LT_SLASH, 1160, 1, mozjs_sym_jsx_opening_element, 5, 2,
      mozjs_sym_html_comment, mozjs_sym_comment, 2801, 2, mozjs_sym_jsx_text,
      mozjs_sym_html_character_reference, 1167, 4, mozjs_sym_jsx_element,
      mozjs_sym_jsx_expression, mozjs_sym_jsx_self_closing_element,
      mozjs_aux_sym_jsx_element_repeat1]"

definition mozjs_small_run_48929 :: "nat list" where
  "mozjs_small_run_48929 =
    [10, 2756, 1, mozjs_sym_identifier, 2758, 1, mozjs_anon_sym_LBRACE, 2760, 1,
      mozjs_anon_sym_COLON, 2762, 1, mozjs_anon_sym_GT, 2764, 1, mozjs_sym_jsx_identifier, 2794,
      1, mozjs_anon_sym_SLASH_GT, 1190, 1, mozjs_aux_sym_jsx_opening_element_repeat1, 1231, 1,
      mozjs_sym_jsx_namespace_name, 5, 2, mozjs_sym_html_comment, mozjs_sym_comment, 1321, 2,
      mozjs_sym_jsx_expression, mozjs_sym_jsx_attribute]"

definition mozjs_small_run_48962 :: "nat list" where
  "mozjs_small_run_48962 =
    [10, 2756, 1, mozjs_sym_identifier, 2758, 1, mozjs_anon_sym_LBRACE, 2762, 1,
      mozjs_anon_sym_GT, 2764, 1, mozjs_sym_jsx_identifier, 2766, 1, mozjs_anon_sym_DOT, 2768, 1,
      mozjs_anon_sym_SLASH_GT, 1182, 1, mozjs_aux_sym_jsx_opening_element_repeat1, 1231, 1,
      mozjs_sym_jsx_namespace_name, 5, 2, mozjs_sym_html_comment, mozjs_sym_comment, 1321, 2,
      mozjs_sym_jsx_expression, mozjs_sym_jsx_attribute]"

definition mozjs_small_run_48995 :: "nat list" where
  "mozjs_small_run_48995 =
    [10, 2756, 1, mozjs_sym_identifier, 2758, 1, mozjs_anon_sym_LBRACE, 2762, 1,
      mozjs_anon_sym_GT, 2764, 1, mozjs_sym_jsx_identifier, 2766, 1, mozjs_anon_sym_DOT, 2794, 1,
      mozjs_anon_sym_SLASH_GT, 1192, 1, mozjs_aux_sym_jsx_opening_element_repeat1, 1231, 1,
      mozjs_sym_jsx_namespace_name, 5, 2, mozjs_sym_html_comment, mozjs_sym_comment, 1321, 2,
      mozjs_sym_jsx_expression, mozjs_sym_jsx_attribute]"

definition mozjs_small_run_49028 :: "nat list" where
  "mozjs_small_run_49028 =
    [9, 2756, 1, mozjs_sym_identifier, 2758, 1, mozjs_anon_sym_LBRACE, 2764, 1,
      mozjs_sym_jsx_identifier, 2809, 1, mozjs_anon_sym_GT, 2811, 1, mozjs_anon_sym_SLASH_GT,
      1172, 1, mozjs_aux_sym_jsx_opening_element_repeat1, 1231, 1, mozjs_sym_jsx_namespace_name,
      5, 2, mozjs_sym_html_comment, mozjs_sym_comment, 1321, 2, mozjs_sym_jsx_expression,
      mozjs_sym_jsx_attribute]"

definition mozjs_small_run_49058 :: "nat list" where
  "mozjs_small_run_49058 =
    [8, 2813, 1, mozjs_sym_identifier, 2816, 1, mozjs_anon_sym_LBRACE, 2821, 1,
      mozjs_sym_jsx_identifier, 1172, 1, mozjs_aux_sym_jsx_opening_element_repeat1, 1231, 1,
      mozjs_sym_jsx_namespace_name, 5, 2, mozjs_sym_html_comment, mozjs_sym_comment, 2819, 2,
      mozjs_anon_sym_GT, mozjs_anon_sym_SLASH_GT, 1321, 2, mozjs_sym_jsx_expression,
      mozjs_sym_jsx_attribute]"

definition mozjs_small_run_49086 :: "nat list" where
  "mozjs_small_run_49086 =
    [9, 2756, 1, mozjs_sym_identifier, 2758, 1, mozjs_anon_sym_LBRACE, 2764, 1,
      mozjs_sym_jsx_identifier, 2809, 1, mozjs_anon_sym_GT, 2824, 1, mozjs_anon_sym_SLASH_GT,
      1172, 1, mozjs_aux_sym_jsx_opening_element_repeat1, 1231, 1, mozjs_sym_jsx_namespace_name,
      5, 2, mozjs_sym_html_comment, mozjs_sym_comment, 1321, 2, mozjs_sym_jsx_expression,
      mozjs_sym_jsx_attribute]"

definition mozjs_small_run_49116 :: "nat list" where
  "mozjs_small_run_49116 =
    [9, 2756, 1, mozjs_sym_identifier, 2758, 1, mozjs_anon_sym_LBRACE, 2764, 1,
      mozjs_sym_jsx_identifier, 2826, 1, mozjs_anon_sym_GT, 2828, 1, mozjs_anon_sym_SLASH_GT,
      1172, 1, mozjs_aux_sym_jsx_opening_element_repeat1, 1231, 1, mozjs_sym_jsx_namespace_name,
      5, 2, mozjs_sym_html_comment, mozjs_sym_comment, 1321, 2, mozjs_sym_jsx_expression,
      mozjs_sym_jsx_attribute]"

definition mozjs_small_run_49146 :: "nat list" where
  "mozjs_small_run_49146 =
    [9, 2756, 1, mozjs_sym_identifier, 2758, 1, mozjs_anon_sym_LBRACE, 2764, 1,
      mozjs_sym_jsx_identifier, 2830, 1, mozjs_anon_sym_GT, 2832, 1, mozjs_anon_sym_SLASH_GT,
      1172, 1, mozjs_aux_sym_jsx_opening_element_repeat1, 1231, 1, mozjs_sym_jsx_namespace_name,
      5, 2, mozjs_sym_html_comment, mozjs_sym_comment, 1321, 2, mozjs_sym_jsx_expression,
      mozjs_sym_jsx_attribute]"

definition mozjs_small_run_49176 :: "nat list" where
  "mozjs_small_run_49176 =
    [9, 2756, 1, mozjs_sym_identifier, 2758, 1, mozjs_anon_sym_LBRACE, 2764, 1,
      mozjs_sym_jsx_identifier, 2834, 1, mozjs_anon_sym_GT, 2836, 1, mozjs_anon_sym_SLASH_GT,
      1172, 1, mozjs_aux_sym_jsx_opening_element_repeat1, 1231, 1, mozjs_sym_jsx_namespace_name,
      5, 2, mozjs_sym_html_comment, mozjs_sym_comment, 1321, 2, mozjs_sym_jsx_expression,
      mozjs_sym_jsx_attribute]"

definition mozjs_small_run_49206 :: "nat list" where
  "mozjs_small_run_49206 =
    [9, 2756, 1, mozjs_sym_identifier, 2758, 1, mozjs_anon_sym_LBRACE, 2764, 1,
      mozjs_sym_jsx_identifier, 2834, 1, mozjs_anon_sym_GT, 2838, 1, mozjs_anon_sym_SLASH_GT,
      1172, 1, mozjs_aux_sym_jsx_opening_element_repeat1, 1231, 1, mozjs_sym_jsx_namespace_name,
      5, 2, mozjs_sym_html_comment, mozjs_sym_comment, 1321, 2, mozjs_sym_jsx_expression,
      mozjs_sym_jsx_attribute]"

definition mozjs_small_run_49236 :: "nat list" where
  "mozjs_small_run_49236 =
    [9, 2756, 1, mozjs_sym_identifier, 2758, 1, mozjs_anon_sym_LBRACE, 2764, 1,
      mozjs_sym_jsx_identifier, 2809, 1, mozjs_anon_sym_GT, 2840, 1, mozjs_anon_sym_SLASH_GT,
      1172, 1, mozjs_aux_sym_jsx_opening_element_repeat1, 1231, 1, mozjs_sym_jsx_namespace_name,
      5, 2, mozjs_sym_html_comment, mozjs_sym_comment, 1321, 2, mozjs_sym_jsx_expression,
      mozjs_sym_jsx_attribute]"

definition mozjs_small_run_49266 :: "nat list" where
  "mozjs_small_run_49266 =
    [7, 2758, 1, mozjs_anon_sym_LBRACE, 2842, 1, mozjs_anon_sym_LT, 2844, 1,
      mozjs_anon_sym_DQUOTE, 2846, 1, mozjs_anon_sym_SQUOTE, 1156, 1,
      mozjs_sym_jsx_opening_element, 5, 2, mozjs_sym_html_comment, mozjs_sym_comment, 1295, 4,
      mozjs_sym_jsx_element, mozjs_sym_jsx_expression, mozjs_sym_jsx_self_closing_element,
      mozjs_sym__jsx_string]"

definition mozjs_small_run_49292 :: "nat list" where
  "mozjs_small_run_49292 =
    [9, 2756, 1, mozjs_sym_identifier, 2758, 1, mozjs_anon_sym_LBRACE, 2762, 1,
      mozjs_anon_sym_GT, 2764, 1, mozjs_sym_jsx_identifier, 2784, 1, mozjs_anon_sym_SLASH_GT,
      1186, 1, mozjs_aux_sym_jsx_opening_element_repeat1, 1231, 1, mozjs_sym_jsx_namespace_name,
      5, 2, mozjs_sym_html_comment, mozjs_sym_comment, 1321, 2, mozjs_sym_jsx_expression,
      mozjs_sym_jsx_attribute]"

definition mozjs_small_run_49322 :: "nat list" where
  "mozjs_small_run_49322 =
    [9, 1084, 1, mozjs_anon_sym_DQUOTE, 1086, 1, mozjs_anon_sym_SQUOTE, 2848, 1,
      mozjs_sym_identifier, 2850, 1, mozjs_anon_sym_default, 2852, 1, mozjs_anon_sym_COMMA, 2854,
      1, mozjs_anon_sym_RBRACE, 1488, 1, mozjs_sym_import_specifier, 5, 2,
      mozjs_sym_html_comment, mozjs_sym_comment, 1759, 2, mozjs_sym__module_export_name,
      mozjs_sym_string]"

definition mozjs_small_run_49352 :: "nat list" where
  "mozjs_small_run_49352 =
    [9, 2756, 1, mozjs_sym_identifier, 2758, 1, mozjs_anon_sym_LBRACE, 2764, 1,
      mozjs_sym_jsx_identifier, 2830, 1, mozjs_anon_sym_GT, 2856, 1, mozjs_anon_sym_SLASH_GT,
      1172, 1, mozjs_aux_sym_jsx_opening_element_repeat1, 1231, 1, mozjs_sym_jsx_namespace_name,
      5, 2, mozjs_sym_html_comment, mozjs_sym_comment, 1321, 2, mozjs_sym_jsx_expression,
      mozjs_sym_jsx_attribute]"

definition mozjs_small_run_49382 :: "nat list" where
  "mozjs_small_run_49382 =
    [8, 1084, 1, mozjs_anon_sym_DQUOTE, 1086, 1, mozjs_anon_sym_SQUOTE, 2860, 1,
      mozjs_anon_sym_COMMA, 2862, 1, mozjs_anon_sym_RBRACE, 1470, 1, mozjs_sym_export_specifier,
      5, 2, mozjs_sym_html_comment, mozjs_sym_comment, 2858, 2, mozjs_anon_sym_default,
      mozjs_sym_identifier, 1493, 2, mozjs_sym__module_export_name, mozjs_sym_string]"

definition mozjs_small_run_49410 :: "nat list" where
  "mozjs_small_run_49410 =
    [9, 2756, 1, mozjs_sym_identifier, 2758, 1, mozjs_anon_sym_LBRACE, 2764, 1,
      mozjs_sym_jsx_identifier, 2826, 1, mozjs_anon_sym_GT, 2864, 1, mozjs_anon_sym_SLASH_GT,
      1172, 1, mozjs_aux_sym_jsx_opening_element_repeat1, 1231, 1, mozjs_sym_jsx_namespace_name,
      5, 2, mozjs_sym_html_comment, mozjs_sym_comment, 1321, 2, mozjs_sym_jsx_expression,
      mozjs_sym_jsx_attribute]"

definition mozjs_small_run_49440 :: "nat list" where
  "mozjs_small_run_49440 =
    [9, 2756, 1, mozjs_sym_identifier, 2758, 1, mozjs_anon_sym_LBRACE, 2764, 1,
      mozjs_sym_jsx_identifier, 2830, 1, mozjs_anon_sym_GT, 2866, 1, mozjs_anon_sym_SLASH_GT,
      1172, 1, mozjs_aux_sym_jsx_opening_element_repeat1, 1231, 1, mozjs_sym_jsx_namespace_name,
      5, 2, mozjs_sym_html_comment, mozjs_sym_comment, 1321, 2, mozjs_sym_jsx_expression,
      mozjs_sym_jsx_attribute]"

definition mozjs_small_run_49470 :: "nat list" where
  "mozjs_small_run_49470 =
    [9, 2756, 1, mozjs_sym_identifier, 2758, 1, mozjs_anon_sym_LBRACE, 2764, 1,
      mozjs_sym_jsx_identifier, 2834, 1, mozjs_anon_sym_GT, 2868, 1, mozjs_anon_sym_SLASH_GT,
      1172, 1, mozjs_aux_sym_jsx_opening_element_repeat1, 1231, 1, mozjs_sym_jsx_namespace_name,
      5, 2, mozjs_sym_html_comment, mozjs_sym_comment, 1321, 2, mozjs_sym_jsx_expression,
      mozjs_sym_jsx_attribute]"

definition mozjs_small_run_49500 :: "nat list" where
  "mozjs_small_run_49500 =
    [9, 2756, 1, mozjs_sym_identifier, 2758, 1, mozjs_anon_sym_LBRACE, 2762, 1,
      mozjs_anon_sym_GT, 2764, 1, mozjs_sym_jsx_identifier, 2770, 1, mozjs_anon_sym_SLASH_GT,
      1176, 1, mozjs_aux_sym_jsx_opening_element_repeat1, 1231, 1, mozjs_sym_jsx_namespace_name,
      5, 2, mozjs_sym_html_comment, mozjs_sym_comment, 1321, 2, mozjs_sym_jsx_expression,
      mozjs_sym_jsx_attribute]"

definition mozjs_small_run_49530 :: "nat list" where
  "mozjs_small_run_49530 =
    [9, 2756, 1, mozjs_sym_identifier, 2758, 1, mozjs_anon_sym_LBRACE, 2762, 1,
      mozjs_anon_sym_GT, 2764, 1, mozjs_sym_jsx_identifier, 2794, 1, mozjs_anon_sym_SLASH_GT,
      1193, 1, mozjs_aux_sym_jsx_opening_element_repeat1, 1231, 1, mozjs_sym_jsx_namespace_name,
      5, 2, mozjs_sym_html_comment, mozjs_sym_comment, 1321, 2, mozjs_sym_jsx_expression,
      mozjs_sym_jsx_attribute]"

definition mozjs_small_run_49560 :: "nat list" where
  "mozjs_small_run_49560 =
    [9, 2756, 1, mozjs_sym_identifier, 2758, 1, mozjs_anon_sym_LBRACE, 2762, 1,
      mozjs_anon_sym_GT, 2764, 1, mozjs_sym_jsx_identifier, 2768, 1, mozjs_anon_sym_SLASH_GT,
      1177, 1, mozjs_aux_sym_jsx_opening_element_repeat1, 1231, 1, mozjs_sym_jsx_namespace_name,
      5, 2, mozjs_sym_html_comment, mozjs_sym_comment, 1321, 2, mozjs_sym_jsx_expression,
      mozjs_sym_jsx_attribute]"

definition mozjs_small_run_49590 :: "nat list" where
  "mozjs_small_run_49590 =
    [9, 2756, 1, mozjs_sym_identifier, 2758, 1, mozjs_anon_sym_LBRACE, 2764, 1,
      mozjs_sym_jsx_identifier, 2809, 1, mozjs_anon_sym_GT, 2870, 1, mozjs_anon_sym_SLASH_GT,
      1172, 1, mozjs_aux_sym_jsx_opening_element_repeat1, 1231, 1, mozjs_sym_jsx_namespace_name,
      5, 2, mozjs_sym_html_comment, mozjs_sym_comment, 1321, 2, mozjs_sym_jsx_expression,
      mozjs_sym_jsx_attribute]"

definition mozjs_small_run_49620 :: "nat list" where
  "mozjs_small_run_49620 =
    [9, 2756, 1, mozjs_sym_identifier, 2758, 1, mozjs_anon_sym_LBRACE, 2764, 1,
      mozjs_sym_jsx_identifier, 2826, 1, mozjs_anon_sym_GT, 2872, 1, mozjs_anon_sym_SLASH_GT,
      1172, 1, mozjs_aux_sym_jsx_opening_element_repeat1, 1231, 1, mozjs_sym_jsx_namespace_name,
      5, 2, mozjs_sym_html_comment, mozjs_sym_comment, 1321, 2, mozjs_sym_jsx_expression,
      mozjs_sym_jsx_attribute]"

definition mozjs_small_run_49650 :: "nat list" where
  "mozjs_small_run_49650 =
    [9, 2756, 1, mozjs_sym_identifier, 2758, 1, mozjs_anon_sym_LBRACE, 2764, 1,
      mozjs_sym_jsx_identifier, 2830, 1, mozjs_anon_sym_GT, 2874, 1, mozjs_anon_sym_SLASH_GT,
      1172, 1, mozjs_aux_sym_jsx_opening_element_repeat1, 1231, 1, mozjs_sym_jsx_namespace_name,
      5, 2, mozjs_sym_html_comment, mozjs_sym_comment, 1321, 2, mozjs_sym_jsx_expression,
      mozjs_sym_jsx_attribute]"

definition mozjs_small_run_49680 :: "nat list" where
  "mozjs_small_run_49680 =
    [9, 2756, 1, mozjs_sym_identifier, 2758, 1, mozjs_anon_sym_LBRACE, 2764, 1,
      mozjs_sym_jsx_identifier, 2834, 1, mozjs_anon_sym_GT, 2876, 1, mozjs_anon_sym_SLASH_GT,
      1172, 1, mozjs_aux_sym_jsx_opening_element_repeat1, 1231, 1, mozjs_sym_jsx_namespace_name,
      5, 2, mozjs_sym_html_comment, mozjs_sym_comment, 1321, 2, mozjs_sym_jsx_expression,
      mozjs_sym_jsx_attribute]"

definition mozjs_small_run_49710 :: "nat list" where
  "mozjs_small_run_49710 =
    [7, 2758, 1, mozjs_anon_sym_LBRACE, 2842, 1, mozjs_anon_sym_LT, 2844, 1,
      mozjs_anon_sym_DQUOTE, 2846, 1, mozjs_anon_sym_SQUOTE, 1156, 1,
      mozjs_sym_jsx_opening_element, 5, 2, mozjs_sym_html_comment, mozjs_sym_comment, 1296, 4,
      mozjs_sym_jsx_element, mozjs_sym_jsx_expression, mozjs_sym_jsx_self_closing_element,
      mozjs_sym__jsx_string]"

definition mozjs_small_run_49736 :: "nat list" where
  "mozjs_small_run_49736 =
    [9, 2756, 1, mozjs_sym_identifier, 2758, 1, mozjs_anon_sym_LBRACE, 2764, 1,
      mozjs_sym_jsx_identifier, 2826, 1, mozjs_anon_sym_GT, 2878, 1, mozjs_anon_sym_SLASH_GT,
      1172, 1, mozjs_aux_sym_jsx_opening_element_repeat1, 1231, 1, mozjs_sym_jsx_namespace_name,
      5, 2, mozjs_sym_html_comment, mozjs_sym_comment, 1321, 2, mozjs_sym_jsx_expression,
      mozjs_sym_jsx_attribute]"

definition mozjs_small_run_49766 :: "nat list" where
  "mozjs_small_run_49766 =
    [7, 1119, 1, mozjs_sym_identifier, 1121, 1, mozjs_anon_sym_LBRACE, 1123, 1,
      mozjs_anon_sym_of, 1125, 1, mozjs_anon_sym_LBRACK, 1507, 1, mozjs_sym_variable_declarator,
      5, 2, mozjs_sym_html_comment, mozjs_sym_comment, 1283, 3, mozjs_sym_object_pattern,
      mozjs_sym_array_pattern, mozjs_sym__destructuring_pattern]"

definition mozjs_small_run_49791 :: "nat list" where
  "mozjs_small_run_49791 =
    [8, 1084, 1, mozjs_anon_sym_DQUOTE, 1086, 1, mozjs_anon_sym_SQUOTE, 2848, 1,
      mozjs_sym_identifier, 2850, 1, mozjs_anon_sym_default, 2880, 1, mozjs_anon_sym_RBRACE,
      1581, 1, mozjs_sym_import_specifier, 5, 2, mozjs_sym_html_comment, mozjs_sym_comment, 1759,
      2, mozjs_sym__module_export_name, mozjs_sym_string]"

definition mozjs_small_run_49818 :: "nat list" where
  "mozjs_small_run_49818 =
    [7, 1084, 1, mozjs_anon_sym_DQUOTE, 1086, 1, mozjs_anon_sym_SQUOTE, 2882, 1,
      mozjs_anon_sym_RBRACE, 1538, 1, mozjs_sym_export_specifier, 5, 2, mozjs_sym_html_comment,
      mozjs_sym_comment, 2858, 2, mozjs_anon_sym_default, mozjs_sym_identifier, 1493, 2,
      mozjs_sym__module_export_name, mozjs_sym_string]"

definition mozjs_small_run_49843 :: "nat list" where
  "mozjs_small_run_49843 =
    [7, 1119, 1, mozjs_sym_identifier, 1121, 1, mozjs_anon_sym_LBRACE, 1123, 1,
      mozjs_anon_sym_of, 1125, 1, mozjs_anon_sym_LBRACK, 1334, 1, mozjs_sym_variable_declarator,
      5, 2, mozjs_sym_html_comment, mozjs_sym_comment, 1283, 3, mozjs_sym_object_pattern,
      mozjs_sym_array_pattern, mozjs_sym__destructuring_pattern]"

definition mozjs_small_run_49868 :: "nat list" where
  "mozjs_small_run_49868 =
    [7, 1121, 1, mozjs_anon_sym_LBRACE, 1125, 1, mozjs_anon_sym_LBRACK, 1431, 1,
      mozjs_sym_identifier, 2884, 1, mozjs_anon_sym_of, 1391, 1, mozjs_sym_variable_declarator,
      5, 2, mozjs_sym_html_comment, mozjs_sym_comment, 1212, 3, mozjs_sym_object_pattern,
      mozjs_sym_array_pattern, mozjs_sym__destructuring_pattern]"

definition mozjs_small_run_49893 :: "nat list" where
  "mozjs_small_run_49893 =
    [7, 1119, 1, mozjs_sym_identifier, 1121, 1, mozjs_anon_sym_LBRACE, 1123, 1,
      mozjs_anon_sym_of, 1125, 1, mozjs_anon_sym_LBRACK, 1337, 1, mozjs_sym_variable_declarator,
      5, 2, mozjs_sym_html_comment, mozjs_sym_comment, 1283, 3, mozjs_sym_object_pattern,
      mozjs_sym_array_pattern, mozjs_sym__destructuring_pattern]"

definition mozjs_small_run_49918 :: "nat list" where
  "mozjs_small_run_49918 =
    [7, 1119, 1, mozjs_sym_identifier, 1121, 1, mozjs_anon_sym_LBRACE, 1123, 1,
      mozjs_anon_sym_of, 1125, 1, mozjs_anon_sym_LBRACK, 1339, 1, mozjs_sym_variable_declarator,
      5, 2, mozjs_sym_html_comment, mozjs_sym_comment, 1283, 3, mozjs_sym_object_pattern,
      mozjs_sym_array_pattern, mozjs_sym__destructuring_pattern]"

definition mozjs_small_run_49943 :: "nat list" where
  "mozjs_small_run_49943 =
    [7, 1119, 1, mozjs_sym_identifier, 1121, 1, mozjs_anon_sym_LBRACE, 1123, 1,
      mozjs_anon_sym_of, 1125, 1, mozjs_anon_sym_LBRACK, 1393, 1, mozjs_sym_variable_declarator,
      5, 2, mozjs_sym_html_comment, mozjs_sym_comment, 1283, 3, mozjs_sym_object_pattern,
      mozjs_sym_array_pattern, mozjs_sym__destructuring_pattern]"

definition mozjs_small_run_49968 :: "nat list" where
  "mozjs_small_run_49968 =
    [8, 1084, 1, mozjs_anon_sym_DQUOTE, 1086, 1, mozjs_anon_sym_SQUOTE, 2848, 1,
      mozjs_sym_identifier, 2850, 1, mozjs_anon_sym_default, 2886, 1, mozjs_anon_sym_RBRACE,
      1581, 1, mozjs_sym_import_specifier, 5, 2, mozjs_sym_html_comment, mozjs_sym_comment, 1759,
      2, mozjs_sym__module_export_name, mozjs_sym_string]"

definition mozjs_small_run_49995 :: "nat list" where
  "mozjs_small_run_49995 =
    [7, 1121, 1, mozjs_anon_sym_LBRACE, 1125, 1, mozjs_anon_sym_LBRACK, 2888, 1,
      mozjs_sym_identifier, 2890, 1, mozjs_anon_sym_of, 1371, 1, mozjs_sym_variable_declarator,
      5, 2, mozjs_sym_html_comment, mozjs_sym_comment, 1215, 3, mozjs_sym_object_pattern,
      mozjs_sym_array_pattern, mozjs_sym__destructuring_pattern]"

definition mozjs_small_run_50020 :: "nat list" where
  "mozjs_small_run_50020 =
    [7, 1084, 1, mozjs_anon_sym_DQUOTE, 1086, 1, mozjs_anon_sym_SQUOTE, 2892, 1,
      mozjs_anon_sym_RBRACE, 1538, 1, mozjs_sym_export_specifier, 5, 2, mozjs_sym_html_comment,
      mozjs_sym_comment, 2858, 2, mozjs_anon_sym_default, mozjs_sym_identifier, 1493, 2,
      mozjs_sym__module_export_name, mozjs_sym_string]"

definition mozjs_small_run_50045 :: "nat list" where
  "mozjs_small_run_50045 =
    [6, 1978, 1, mozjs_anon_sym_LBRACE, 2894, 1, mozjs_sym_identifier, 2896, 1,
      mozjs_anon_sym_of, 2898, 1, mozjs_anon_sym_LBRACK, 5, 2, mozjs_sym_html_comment,
      mozjs_sym_comment, 1345, 3, mozjs_sym_object_pattern, mozjs_sym_array_pattern,
      mozjs_sym__destructuring_pattern]"

definition mozjs_small_run_50067 :: "nat list" where
  "mozjs_small_run_50067 =
    [4, 1992, 1, mozjs_anon_sym_COMMA, 1222, 1, mozjs_aux_sym_sequence_expression_repeat1, 5, 2,
      mozjs_sym_html_comment, mozjs_sym_comment, 2900, 5, mozjs_anon_sym_RBRACE,
      mozjs_anon_sym_SEMI, mozjs_anon_sym_RPAREN, mozjs_anon_sym_COLON, mozjs_anon_sym_RBRACK]"

definition mozjs_small_run_50085 :: "nat list" where
  "mozjs_small_run_50085 =
    [7, 105, 1, mozjs_anon_sym_COMMA, 372, 1, mozjs_anon_sym_RBRACE, 2406, 1, mozjs_anon_sym_EQ,
      1414, 1, mozjs_aux_sym_object_pattern_repeat1, 1442, 1, mozjs_aux_sym_object_repeat1, 5, 2,
      mozjs_sym_html_comment, mozjs_sym_comment, 2404, 2, mozjs_anon_sym_LPAREN,
      mozjs_anon_sym_COLON]"

definition mozjs_small_run_50109 :: "nat list" where
  "mozjs_small_run_50109 =
    [6, 1121, 1, mozjs_anon_sym_LBRACE, 1125, 1, mozjs_anon_sym_LBRACK, 1478, 1,
      mozjs_sym_identifier, 2902, 1, mozjs_anon_sym_of, 5, 2, mozjs_sym_html_comment,
      mozjs_sym_comment, 1496, 3, mozjs_sym_object_pattern, mozjs_sym_array_pattern,
      mozjs_sym__destructuring_pattern]"

definition mozjs_small_run_50131 :: "nat list" where
  "mozjs_small_run_50131 =
    [6, 1121, 1, mozjs_anon_sym_LBRACE, 1125, 1, mozjs_anon_sym_LBRACK, 2904, 1,
      mozjs_sym_identifier, 2906, 1, mozjs_anon_sym_of, 5, 2, mozjs_sym_html_comment,
      mozjs_sym_comment, 1474, 3, mozjs_sym_object_pattern, mozjs_sym_array_pattern,
      mozjs_sym__destructuring_pattern]"

definition mozjs_small_run_50153 :: "nat list" where
  "mozjs_small_run_50153 =
    [6, 847, 1, mozjs_anon_sym_EQ, 2912, 1, mozjs_sym__automatic_semicolon, 1472, 1,
      mozjs_sym__initializer, 5, 2, mozjs_sym_html_comment, mozjs_sym_comment, 2908, 2,
      mozjs_anon_sym_COMMA, mozjs_anon_sym_SEMI, 2910, 2, mozjs_anon_sym_of, mozjs_anon_sym_in]"

definition mozjs_small_run_50175 :: "nat list" where
  "mozjs_small_run_50175 =
    [2, 5, 2, mozjs_sym_html_comment, mozjs_sym_comment, 2915, 7, mozjs_anon_sym_COMMA,
      mozjs_anon_sym_RBRACE, mozjs_anon_sym_of, mozjs_anon_sym_RPAREN, mozjs_anon_sym_in,
      mozjs_anon_sym_EQ, mozjs_anon_sym_RBRACK]"

definition mozjs_small_run_50189 :: "nat list" where
  "mozjs_small_run_50189 =
    [5, 2919, 1, mozjs_anon_sym_EQ, 1288, 1, mozjs_sym__initializer, 5, 2,
      mozjs_sym_html_comment, mozjs_sym_comment, 2917, 2, mozjs_anon_sym_of, mozjs_anon_sym_in,
      843, 3, mozjs_sym__automatic_semicolon, mozjs_anon_sym_COMMA, mozjs_anon_sym_SEMI]"

definition mozjs_small_run_50209 :: "nat list" where
  "mozjs_small_run_50209 =
    [5, 2919, 1, mozjs_anon_sym_EQ, 1289, 1, mozjs_sym__initializer, 5, 2,
      mozjs_sym_html_comment, mozjs_sym_comment, 2910, 2, mozjs_anon_sym_of, mozjs_anon_sym_in,
      2908, 3, mozjs_sym__automatic_semicolon, mozjs_anon_sym_COMMA, mozjs_anon_sym_SEMI]"

definition mozjs_small_run_50229 :: "nat list" where
  "mozjs_small_run_50229 =
    [2, 5, 2, mozjs_sym_html_comment, mozjs_sym_comment, 2921, 7, mozjs_anon_sym_COMMA,
      mozjs_anon_sym_RBRACE, mozjs_anon_sym_of, mozjs_anon_sym_RPAREN, mozjs_anon_sym_in,
      mozjs_anon_sym_EQ, mozjs_anon_sym_RBRACK]"

definition mozjs_small_run_50243 :: "nat list" where
  "mozjs_small_run_50243 =
    [2, 5, 2, mozjs_sym_html_comment, mozjs_sym_comment, 2923, 7, mozjs_anon_sym_COMMA,
      mozjs_anon_sym_RBRACE, mozjs_anon_sym_of, mozjs_anon_sym_RPAREN, mozjs_anon_sym_in,
      mozjs_anon_sym_EQ, mozjs_anon_sym_RBRACK]"

definition mozjs_small_run_50257 :: "nat list" where
  "mozjs_small_run_50257 =
    [5, 2760, 1, mozjs_anon_sym_COLON, 2925, 1, mozjs_sym_identifier, 2929, 1, mozjs_anon_sym_EQ,
      5, 2, mozjs_sym_html_comment, mozjs_sym_comment, 2927, 4, mozjs_anon_sym_LBRACE,
      mozjs_anon_sym_GT, mozjs_sym_jsx_identifier, mozjs_anon_sym_SLASH_GT]"

definition mozjs_small_run_50277 :: "nat list" where
  "mozjs_small_run_50277 =
    [7, 105, 1, mozjs_anon_sym_COMMA, 313, 1, mozjs_anon_sym_RBRACE, 2406, 1, mozjs_anon_sym_EQ,
      1411, 1, mozjs_aux_sym_object_repeat1, 1414, 1, mozjs_aux_sym_object_pattern_repeat1, 5, 2,
      mozjs_sym_html_comment, mozjs_sym_comment, 2404, 2, mozjs_anon_sym_LPAREN,
      mozjs_anon_sym_COLON]"

definition mozjs_small_run_50301 :: "nat list" where
  "mozjs_small_run_50301 =
    [6, 1084, 1, mozjs_anon_sym_DQUOTE, 1086, 1, mozjs_anon_sym_SQUOTE, 1538, 1,
      mozjs_sym_export_specifier, 5, 2, mozjs_sym_html_comment, mozjs_sym_comment, 2858, 2,
      mozjs_anon_sym_default, mozjs_sym_identifier, 1493, 2, mozjs_sym__module_export_name,
      mozjs_sym_string]"

definition mozjs_small_run_50323 :: "nat list" where
  "mozjs_small_run_50323 =
    [6, 847, 1, mozjs_anon_sym_EQ, 849, 1, mozjs_sym__automatic_semicolon, 1457, 1,
      mozjs_sym__initializer, 5, 2, mozjs_sym_html_comment, mozjs_sym_comment, 843, 2,
      mozjs_anon_sym_COMMA, mozjs_anon_sym_SEMI, 2917, 2, mozjs_anon_sym_of, mozjs_anon_sym_in]"

definition mozjs_small_run_50345 :: "nat list" where
  "mozjs_small_run_50345 =
    [4, 2931, 1, mozjs_anon_sym_COMMA, 1222, 1, mozjs_aux_sym_sequence_expression_repeat1, 5, 2,
      mozjs_sym_html_comment, mozjs_sym_comment, 1847, 5, mozjs_anon_sym_RBRACE,
      mozjs_anon_sym_SEMI, mozjs_anon_sym_RPAREN, mozjs_anon_sym_COLON, mozjs_anon_sym_RBRACK]"

definition mozjs_small_run_50363 :: "nat list" where
  "mozjs_small_run_50363 =
    [7, 105, 1, mozjs_anon_sym_COMMA, 2406, 1, mozjs_anon_sym_EQ, 2410, 1, mozjs_anon_sym_RBRACE,
      1414, 1, mozjs_aux_sym_object_pattern_repeat1, 1442, 1, mozjs_aux_sym_object_repeat1, 5, 2,
      mozjs_sym_html_comment, mozjs_sym_comment, 2404, 2, mozjs_anon_sym_LPAREN,
      mozjs_anon_sym_COLON]"

definition mozjs_small_run_50387 :: "nat list" where
  "mozjs_small_run_50387 =
    [2, 5, 2, mozjs_sym_html_comment, mozjs_sym_comment, 2934, 7, mozjs_anon_sym_COMMA,
      mozjs_anon_sym_RBRACE, mozjs_anon_sym_of, mozjs_anon_sym_RPAREN, mozjs_anon_sym_in,
      mozjs_anon_sym_EQ, mozjs_anon_sym_RBRACK]"

definition mozjs_small_run_50401 :: "nat list" where
  "mozjs_small_run_50401 =
    [7, 105, 1, mozjs_anon_sym_COMMA, 374, 1, mozjs_anon_sym_RBRACE, 2406, 1, mozjs_anon_sym_EQ,
      1414, 1, mozjs_aux_sym_object_pattern_repeat1, 1442, 1, mozjs_aux_sym_object_repeat1, 5, 2,
      mozjs_sym_html_comment, mozjs_sym_comment, 2404, 2, mozjs_anon_sym_LPAREN,
      mozjs_anon_sym_COLON]"

definition mozjs_small_run_50425 :: "nat list" where
  "mozjs_small_run_50425 =
    [7, 105, 1, mozjs_anon_sym_COMMA, 2402, 1, mozjs_anon_sym_RBRACE, 2406, 1, mozjs_anon_sym_EQ,
      1414, 1, mozjs_aux_sym_object_pattern_repeat1, 1442, 1, mozjs_aux_sym_object_repeat1, 5, 2,
      mozjs_sym_html_comment, mozjs_sym_comment, 2404, 2, mozjs_anon_sym_LPAREN,
      mozjs_anon_sym_COLON]"

definition mozjs_small_run_50449 :: "nat list" where
  "mozjs_small_run_50449 =
    [7, 1084, 1, mozjs_anon_sym_DQUOTE, 1086, 1, mozjs_anon_sym_SQUOTE, 2848, 1,
      mozjs_sym_identifier, 2850, 1, mozjs_anon_sym_default, 1581, 1, mozjs_sym_import_specifier,
      5, 2, mozjs_sym_html_comment, mozjs_sym_comment, 1759, 2, mozjs_sym__module_export_name,
      mozjs_sym_string]"

definition mozjs_small_run_50473 :: "nat list" where
  "mozjs_small_run_50473 =
    [2, 5, 2, mozjs_sym_html_comment, mozjs_sym_comment, 2936, 7, mozjs_anon_sym_COMMA,
      mozjs_anon_sym_RBRACE, mozjs_anon_sym_of, mozjs_anon_sym_RPAREN, mozjs_anon_sym_in,
      mozjs_anon_sym_EQ, mozjs_anon_sym_RBRACK]"

definition mozjs_small_run_50487 :: "nat list" where
  "mozjs_small_run_50487 =
    [7, 105, 1, mozjs_anon_sym_COMMA, 2406, 1, mozjs_anon_sym_EQ, 2408, 1, mozjs_anon_sym_RBRACE,
      1414, 1, mozjs_aux_sym_object_pattern_repeat1, 1442, 1, mozjs_aux_sym_object_repeat1, 5, 2,
      mozjs_sym_html_comment, mozjs_sym_comment, 2404, 2, mozjs_anon_sym_LPAREN,
      mozjs_anon_sym_COLON]"

definition mozjs_small_run_50511 :: "nat list" where
  "mozjs_small_run_50511 =
    [6, 847, 1, mozjs_anon_sym_EQ, 2938, 1, mozjs_anon_sym_LPAREN, 1510, 1,
      mozjs_sym__initializer, 1658, 1, mozjs_sym_formal_parameters, 5, 2, mozjs_sym_html_comment,
      mozjs_sym_comment, 2940, 2, mozjs_sym__automatic_semicolon, mozjs_anon_sym_SEMI]"

definition mozjs_small_run_50532 :: "nat list" where
  "mozjs_small_run_50532 =
    [4, 2942, 1, mozjs_sym_identifier, 2946, 1, mozjs_anon_sym_EQ, 5, 2, mozjs_sym_html_comment,
      mozjs_sym_comment, 2944, 4, mozjs_anon_sym_LBRACE, mozjs_anon_sym_GT,
      mozjs_sym_jsx_identifier, mozjs_anon_sym_SLASH_GT]"

definition mozjs_small_run_50549 :: "nat list" where
  "mozjs_small_run_50549 =
    [5, 2950, 1, mozjs_anon_sym_BQUOTE, 2952, 1, mozjs_anon_sym_DOLLAR_LBRACE, 5, 2,
      mozjs_sym_html_comment, mozjs_sym_comment, 2948, 2, mozjs_sym__template_chars,
      mozjs_sym_escape_sequence, 1236, 2, mozjs_sym_template_substitution,
      mozjs_aux_sym_template_string_repeat1]"

definition mozjs_small_run_50568 :: "nat list" where
  "mozjs_small_run_50568 =
    [2, 5, 2, mozjs_sym_html_comment, mozjs_sym_comment, 1925, 6, mozjs_sym__automatic_semicolon,
      mozjs_anon_sym_COMMA, mozjs_anon_sym_of, mozjs_anon_sym_SEMI, mozjs_anon_sym_in,
      mozjs_anon_sym_EQ]"

definition mozjs_small_run_50581 :: "nat list" where
  "mozjs_small_run_50581 =
    [5, 2954, 1, mozjs_anon_sym_default, 2956, 1, mozjs_anon_sym_RBRACE, 2958, 1,
      mozjs_anon_sym_case, 5, 2, mozjs_sym_html_comment, mozjs_sym_comment, 1252, 3,
      mozjs_sym_switch_case, mozjs_sym_switch_default, mozjs_aux_sym_switch_body_repeat1]"

definition mozjs_small_run_50600 :: "nat list" where
  "mozjs_small_run_50600 =
    [6, 847, 1, mozjs_anon_sym_EQ, 2938, 1, mozjs_anon_sym_LPAREN, 1514, 1,
      mozjs_sym_formal_parameters, 1534, 1, mozjs_sym__initializer, 5, 2, mozjs_sym_html_comment,
      mozjs_sym_comment, 2960, 2, mozjs_sym__automatic_semicolon, mozjs_anon_sym_SEMI]"

definition mozjs_small_run_50621 :: "nat list" where
  "mozjs_small_run_50621 =
    [5, 2952, 1, mozjs_anon_sym_DOLLAR_LBRACE, 2964, 1, mozjs_anon_sym_BQUOTE, 5, 2,
      mozjs_sym_html_comment, mozjs_sym_comment, 2962, 2, mozjs_sym__template_chars,
      mozjs_sym_escape_sequence, 1237, 2, mozjs_sym_template_substitution,
      mozjs_aux_sym_template_string_repeat1]"

definition mozjs_small_run_50640 :: "nat list" where
  "mozjs_small_run_50640 =
    [5, 2969, 1, mozjs_anon_sym_BQUOTE, 2971, 1, mozjs_anon_sym_DOLLAR_LBRACE, 5, 2,
      mozjs_sym_html_comment, mozjs_sym_comment, 2966, 2, mozjs_sym__template_chars,
      mozjs_sym_escape_sequence, 1237, 2, mozjs_sym_template_substitution,
      mozjs_aux_sym_template_string_repeat1]"

definition mozjs_small_run_50659 :: "nat list" where
  "mozjs_small_run_50659 =
    [5, 1978, 1, mozjs_anon_sym_LBRACE, 2898, 1, mozjs_anon_sym_LBRACK, 2974, 1,
      mozjs_sym_identifier, 5, 2, mozjs_sym_html_comment, mozjs_sym_comment, 1842, 3,
      mozjs_sym_object_pattern, mozjs_sym_array_pattern, mozjs_sym__destructuring_pattern]"

definition mozjs_small_run_50678 :: "nat list" where
  "mozjs_small_run_50678 =
    [2, 5, 2, mozjs_sym_html_comment, mozjs_sym_comment, 2915, 6, mozjs_sym__automatic_semicolon,
      mozjs_anon_sym_COMMA, mozjs_anon_sym_of, mozjs_anon_sym_SEMI, mozjs_anon_sym_in,
      mozjs_anon_sym_EQ]"

definition mozjs_small_run_50691 :: "nat list" where
  "mozjs_small_run_50691 =
    [3, 2976, 1, mozjs_sym_identifier, 5, 2, mozjs_sym_html_comment, mozjs_sym_comment, 2978, 5,
      mozjs_anon_sym_LBRACE, mozjs_anon_sym_EQ, mozjs_anon_sym_GT, mozjs_sym_jsx_identifier,
      mozjs_anon_sym_SLASH_GT]"

definition mozjs_small_run_50706 :: "nat list" where
  "mozjs_small_run_50706 =
    [3, 2980, 1, mozjs_sym_identifier, 5, 2, mozjs_sym_html_comment, mozjs_sym_comment, 2982, 5,
      mozjs_anon_sym_LBRACE, mozjs_anon_sym_GT, mozjs_sym_jsx_identifier, mozjs_anon_sym_DOT,
      mozjs_anon_sym_SLASH_GT]"

definition mozjs_small_run_50721 :: "nat list" where
  "mozjs_small_run_50721 =
    [5, 2954, 1, mozjs_anon_sym_default, 2958, 1, mozjs_anon_sym_case, 2984, 1,
      mozjs_anon_sym_RBRACE, 5, 2, mozjs_sym_html_comment, mozjs_sym_comment, 1234, 3,
      mozjs_sym_switch_case, mozjs_sym_switch_default, mozjs_aux_sym_switch_body_repeat1]"

definition mozjs_small_run_50740 :: "nat list" where
  "mozjs_small_run_50740 =
    [2, 5, 2, mozjs_sym_html_comment, mozjs_sym_comment, 2921, 6, mozjs_sym__automatic_semicolon,
      mozjs_anon_sym_COMMA, mozjs_anon_sym_of, mozjs_anon_sym_SEMI, mozjs_anon_sym_in,
      mozjs_anon_sym_EQ]"

definition mozjs_small_run_50753 :: "nat list" where
  "mozjs_small_run_50753 =
    [5, 2952, 1, mozjs_anon_sym_DOLLAR_LBRACE, 2986, 1, mozjs_anon_sym_BQUOTE, 5, 2,
      mozjs_sym_html_comment, mozjs_sym_comment, 2962, 2, mozjs_sym__template_chars,
      mozjs_sym_escape_sequence, 1237, 2, mozjs_sym_template_substitution,
      mozjs_aux_sym_template_string_repeat1]"

definition mozjs_small_run_50772 :: "nat list" where
  "mozjs_small_run_50772 =
    [6, 847, 1, mozjs_anon_sym_EQ, 2938, 1, mozjs_anon_sym_LPAREN, 1627, 1,
      mozjs_sym_formal_parameters, 1666, 1, mozjs_sym__initializer, 5, 2, mozjs_sym_html_comment,
      mozjs_sym_comment, 2988, 2, mozjs_sym__automatic_semicolon, mozjs_anon_sym_SEMI]"

definition mozjs_small_run_50793 :: "nat list" where
  "mozjs_small_run_50793 =
    [6, 847, 1, mozjs_anon_sym_EQ, 2938, 1, mozjs_anon_sym_LPAREN, 1629, 1,
      mozjs_sym_formal_parameters, 1668, 1, mozjs_sym__initializer, 5, 2, mozjs_sym_html_comment,
      mozjs_sym_comment, 2990, 2, mozjs_sym__automatic_semicolon, mozjs_anon_sym_SEMI]"

definition mozjs_small_run_50814 :: "nat list" where
  "mozjs_small_run_50814 =
    [2, 5, 2, mozjs_sym_html_comment, mozjs_sym_comment, 2934, 6, mozjs_sym__automatic_semicolon,
      mozjs_anon_sym_COMMA, mozjs_anon_sym_of, mozjs_anon_sym_SEMI, mozjs_anon_sym_in,
      mozjs_anon_sym_EQ]"

definition mozjs_small_run_50827 :: "nat list" where
  "mozjs_small_run_50827 =
    [2, 5, 2, mozjs_sym_html_comment, mozjs_sym_comment, 2923, 6, mozjs_sym__automatic_semicolon,
      mozjs_anon_sym_COMMA, mozjs_anon_sym_of, mozjs_anon_sym_SEMI, mozjs_anon_sym_in,
      mozjs_anon_sym_EQ]"

definition mozjs_small_run_50840 :: "nat list" where
  "mozjs_small_run_50840 =
    [2, 5, 2, mozjs_sym_html_comment, mozjs_sym_comment, 2936, 6, mozjs_sym__automatic_semicolon,
      mozjs_anon_sym_COMMA, mozjs_anon_sym_of, mozjs_anon_sym_SEMI, mozjs_anon_sym_in,
      mozjs_anon_sym_EQ]"

definition mozjs_small_run_50853 :: "nat list" where
  "mozjs_small_run_50853 =
    [5, 1084, 1, mozjs_anon_sym_DQUOTE, 1086, 1, mozjs_anon_sym_SQUOTE, 5, 2,
      mozjs_sym_html_comment, mozjs_sym_comment, 2992, 2, mozjs_anon_sym_default,
      mozjs_sym_identifier, 1541, 2, mozjs_sym__module_export_name, mozjs_sym_string]"

definition mozjs_small_run_50872 :: "nat list" where
  "mozjs_small_run_50872 =
    [2, 5, 2, mozjs_sym_html_comment, mozjs_sym_comment, 1921, 6, mozjs_sym__automatic_semicolon,
      mozjs_anon_sym_COMMA, mozjs_anon_sym_of, mozjs_anon_sym_SEMI, mozjs_anon_sym_in,
      mozjs_anon_sym_EQ]"

definition mozjs_small_run_50885 :: "nat list" where
  "mozjs_small_run_50885 =
    [5, 2994, 1, mozjs_anon_sym_default, 2997, 1, mozjs_anon_sym_RBRACE, 2999, 1,
      mozjs_anon_sym_case, 5, 2, mozjs_sym_html_comment, mozjs_sym_comment, 1252, 3,
      mozjs_sym_switch_case, mozjs_sym_switch_default, mozjs_aux_sym_switch_body_repeat1]"

definition mozjs_small_run_50904 :: "nat list" where
  "mozjs_small_run_50904 =
    [5, 2952, 1, mozjs_anon_sym_DOLLAR_LBRACE, 3004, 1, mozjs_anon_sym_BQUOTE, 5, 2,
      mozjs_sym_html_comment, mozjs_sym_comment, 3002, 2, mozjs_sym__template_chars,
      mozjs_sym_escape_sequence, 1244, 2, mozjs_sym_template_substitution,
      mozjs_aux_sym_template_string_repeat1]"

definition mozjs_small_run_50923 :: "nat list" where
  "mozjs_small_run_50923 =
    [2, 5, 2, mozjs_sym_html_comment, mozjs_sym_comment, 1716, 6, mozjs_anon_sym_as,
      mozjs_anon_sym_COMMA, mozjs_anon_sym_RBRACE, mozjs_anon_sym_from, mozjs_anon_sym_LPAREN,
      mozjs_anon_sym_COLON]"

definition mozjs_small_run_50936 :: "nat list" where
  "mozjs_small_run_50936 =
    [5, 1084, 1, mozjs_anon_sym_DQUOTE, 1086, 1, mozjs_anon_sym_SQUOTE, 5, 2,
      mozjs_sym_html_comment, mozjs_sym_comment, 3006, 2, mozjs_anon_sym_default,
      mozjs_sym_identifier, 1818, 2, mozjs_sym__module_export_name, mozjs_sym_string]"

definition mozjs_small_run_50955 :: "nat list" where
  "mozjs_small_run_50955 =
    [2, 5, 2, mozjs_sym_html_comment, mozjs_sym_comment, 1724, 6, mozjs_anon_sym_as,
      mozjs_anon_sym_COMMA, mozjs_anon_sym_RBRACE, mozjs_anon_sym_from, mozjs_anon_sym_LPAREN,
      mozjs_anon_sym_COLON]"

definition mozjs_small_run_50968 :: "nat list" where
  "mozjs_small_run_50968 =
    [2, 5, 2, mozjs_sym_html_comment, mozjs_sym_comment, 1923, 6, mozjs_sym__automatic_semicolon,
      mozjs_anon_sym_COMMA, mozjs_anon_sym_of, mozjs_anon_sym_SEMI, mozjs_anon_sym_in,
      mozjs_anon_sym_EQ]"

definition mozjs_small_run_50981 :: "nat list" where
  "mozjs_small_run_50981 =
    [6, 3008, 1, mozjs_sym_identifier, 3010, 1, mozjs_anon_sym_LBRACE, 3012, 1,
      mozjs_anon_sym_extends, 756, 1, mozjs_sym_class_body, 1750, 1, mozjs_sym_class_heritage, 5,
      2, mozjs_sym_html_comment, mozjs_sym_comment]"

definition mozjs_small_run_51001 :: "nat list" where
  "mozjs_small_run_51001 =
    [6, 3012, 1, mozjs_anon_sym_extends, 3014, 1, mozjs_sym_identifier, 3016, 1,
      mozjs_anon_sym_LBRACE, 646, 1, mozjs_sym_class_body, 1509, 1, mozjs_sym_class_heritage, 5,
      2, mozjs_sym_html_comment, mozjs_sym_comment]"

definition mozjs_small_run_51021 :: "nat list" where
  "mozjs_small_run_51021 =
    [3, 3020, 1, mozjs_anon_sym_LT, 5, 2, mozjs_sym_html_comment, mozjs_sym_comment, 3018, 4,
      mozjs_sym_jsx_text, mozjs_anon_sym_LBRACE, mozjs_sym_html_character_reference,
      mozjs_anon_sym_LT_SLASH]"

definition mozjs_small_run_51035 :: "nat list" where
  "mozjs_small_run_51035 =
    [6, 3010, 1, mozjs_anon_sym_LBRACE, 3012, 1, mozjs_anon_sym_extends, 3022, 1,
      mozjs_sym_identifier, 799, 1, mozjs_sym_class_body, 1517, 1, mozjs_sym_class_heritage, 5,
      2, mozjs_sym_html_comment, mozjs_sym_comment]"

definition mozjs_small_run_51055 :: "nat list" where
  "mozjs_small_run_51055 =
    [3, 3020, 1, mozjs_anon_sym_LT, 5, 2, mozjs_sym_html_comment, mozjs_sym_comment, 3018, 4,
      mozjs_sym_jsx_text, mozjs_anon_sym_LBRACE, mozjs_sym_html_character_reference,
      mozjs_anon_sym_LT_SLASH]"

definition mozjs_small_run_51069 :: "nat list" where
  "mozjs_small_run_51069 =
    [3, 3020, 1, mozjs_anon_sym_LT, 5, 2, mozjs_sym_html_comment, mozjs_sym_comment, 3018, 4,
      mozjs_sym_jsx_text, mozjs_anon_sym_LBRACE, mozjs_sym_html_character_reference,
      mozjs_anon_sym_LT_SLASH]"

definition mozjs_small_run_51083 :: "nat list" where
  "mozjs_small_run_51083 =
    [3, 3024, 1, mozjs_sym_identifier, 5, 2, mozjs_sym_html_comment, mozjs_sym_comment, 3026, 4,
      mozjs_anon_sym_LBRACE, mozjs_anon_sym_GT, mozjs_sym_jsx_identifier,
      mozjs_anon_sym_SLASH_GT]"

definition mozjs_small_run_51097 :: "nat list" where
  "mozjs_small_run_51097 =
    [6, 3012, 1, mozjs_anon_sym_extends, 3016, 1, mozjs_anon_sym_LBRACE, 3028, 1,
      mozjs_sym_identifier, 597, 1, mozjs_sym_class_body, 1713, 1, mozjs_sym_class_heritage, 5,
      2, mozjs_sym_html_comment, mozjs_sym_comment]"

definition mozjs_small_run_51117 :: "nat list" where
  "mozjs_small_run_51117 =
    [2, 5, 2, mozjs_sym_html_comment, mozjs_sym_comment, 1724, 5, mozjs_sym__automatic_semicolon,
      mozjs_anon_sym_with, mozjs_anon_sym_LPAREN, mozjs_anon_sym_SEMI, mozjs_anon_sym_EQ]"

definition mozjs_small_run_51129 :: "nat list" where
  "mozjs_small_run_51129 =
    [3, 3020, 1, mozjs_anon_sym_LT, 5, 2, mozjs_sym_html_comment, mozjs_sym_comment, 3018, 4,
      mozjs_sym_jsx_text, mozjs_anon_sym_LBRACE, mozjs_sym_html_character_reference,
      mozjs_anon_sym_LT_SLASH]"

definition mozjs_small_run_51143 :: "nat list" where
  "mozjs_small_run_51143 =
    [4, 2406, 1, mozjs_anon_sym_EQ, 5, 2, mozjs_sym_html_comment, mozjs_sym_comment, 2404, 2,
      mozjs_anon_sym_LPAREN, mozjs_anon_sym_COLON, 2427, 2, mozjs_anon_sym_COMMA,
      mozjs_anon_sym_RBRACE]"

definition mozjs_small_run_51159 :: "nat list" where
  "mozjs_small_run_51159 =
    [3, 3030, 1, mozjs_sym_identifier, 5, 2, mozjs_sym_html_comment, mozjs_sym_comment, 3032, 4,
      mozjs_anon_sym_LBRACE, mozjs_anon_sym_GT, mozjs_sym_jsx_identifier,
      mozjs_anon_sym_SLASH_GT]"

definition mozjs_small_run_51173 :: "nat list" where
  "mozjs_small_run_51173 =
    [6, 3034, 1, mozjs_sym_identifier, 3036, 1, mozjs_anon_sym_GT, 3038, 1,
      mozjs_sym_jsx_identifier, 1714, 1, mozjs_sym_nested_identifier, 1815, 1,
      mozjs_sym_jsx_namespace_name, 5, 2, mozjs_sym_html_comment, mozjs_sym_comment]"

definition mozjs_small_run_51193 :: "nat list" where
  "mozjs_small_run_51193 =
    [3, 3042, 1, mozjs_anon_sym_LT, 5, 2, mozjs_sym_html_comment, mozjs_sym_comment, 3040, 4,
      mozjs_sym_jsx_text, mozjs_anon_sym_LBRACE, mozjs_sym_html_character_reference,
      mozjs_anon_sym_LT_SLASH]"

definition mozjs_small_run_51207 :: "nat list" where
  "mozjs_small_run_51207 =
    [3, 3042, 1, mozjs_sym_identifier, 5, 2, mozjs_sym_html_comment, mozjs_sym_comment, 3040, 4,
      mozjs_anon_sym_LBRACE, mozjs_anon_sym_GT, mozjs_sym_jsx_identifier,
      mozjs_anon_sym_SLASH_GT]"

definition mozjs_small_run_51221 :: "nat list" where
  "mozjs_small_run_51221 =
    [6, 3044, 1, mozjs_sym_identifier, 3046, 1, mozjs_anon_sym_GT, 3048, 1,
      mozjs_sym_jsx_identifier, 1520, 1, mozjs_sym_nested_identifier, 1769, 1,
      mozjs_sym_jsx_namespace_name, 5, 2, mozjs_sym_html_comment, mozjs_sym_comment]"

definition mozjs_small_run_51241 :: "nat list" where
  "mozjs_small_run_51241 =
    [6, 2324, 1, mozjs_anon_sym_COMMA, 2404, 1, mozjs_anon_sym_COLON, 2406, 1, mozjs_anon_sym_EQ,
      3050, 1, mozjs_anon_sym_RBRACE, 1408, 1, mozjs_aux_sym_object_pattern_repeat1, 5, 2,
      mozjs_sym_html_comment, mozjs_sym_comment]"

definition mozjs_small_run_51261 :: "nat list" where
  "mozjs_small_run_51261 =
    [6, 3052, 1, mozjs_sym_identifier, 3054, 1, mozjs_anon_sym_GT, 3056, 1,
      mozjs_sym_jsx_identifier, 1162, 1, mozjs_sym_nested_identifier, 1180, 1,
      mozjs_sym_jsx_namespace_name, 5, 2, mozjs_sym_html_comment, mozjs_sym_comment]"

definition mozjs_small_run_51281 :: "nat list" where
  "mozjs_small_run_51281 =
    [6, 3010, 1, mozjs_anon_sym_LBRACE, 3012, 1, mozjs_anon_sym_extends, 3058, 1,
      mozjs_sym_identifier, 756, 1, mozjs_sym_class_body, 1750, 1, mozjs_sym_class_heritage, 5,
      2, mozjs_sym_html_comment, mozjs_sym_comment]"

definition mozjs_small_run_51301 :: "nat list" where
  "mozjs_small_run_51301 =
    [3, 3062, 1, mozjs_anon_sym_LT, 5, 2, mozjs_sym_html_comment, mozjs_sym_comment, 3060, 4,
      mozjs_sym_jsx_text, mozjs_anon_sym_LBRACE, mozjs_sym_html_character_reference,
      mozjs_anon_sym_LT_SLASH]"

definition mozjs_small_run_51315 :: "nat list" where
  "mozjs_small_run_51315 =
    [6, 93, 1, mozjs_anon_sym_AT, 3064, 1, mozjs_anon_sym_export, 3066, 1, mozjs_anon_sym_class,
      1050, 1, mozjs_aux_sym_export_statement_repeat1, 1112, 1, mozjs_sym_decorator, 5, 2,
      mozjs_sym_html_comment, mozjs_sym_comment]"

definition mozjs_small_run_51335 :: "nat list" where
  "mozjs_small_run_51335 =
    [4, 847, 1, mozjs_anon_sym_EQ, 1457, 1, mozjs_sym__initializer, 5, 2, mozjs_sym_html_comment,
      mozjs_sym_comment, 843, 3, mozjs_sym__automatic_semicolon, mozjs_anon_sym_COMMA,
      mozjs_anon_sym_SEMI]"

definition mozjs_small_run_51351 :: "nat list" where
  "mozjs_small_run_51351 =
    [6, 3010, 1, mozjs_anon_sym_LBRACE, 3012, 1, mozjs_anon_sym_extends, 3068, 1,
      mozjs_sym_identifier, 799, 1, mozjs_sym_class_body, 1517, 1, mozjs_sym_class_heritage, 5,
      2, mozjs_sym_html_comment, mozjs_sym_comment]"

definition mozjs_small_run_51371 :: "nat list" where
  "mozjs_small_run_51371 =
    [5, 2282, 1, mozjs_anon_sym_COMMA, 2425, 1, mozjs_anon_sym_RBRACE, 1434, 1,
      mozjs_aux_sym_object_repeat1, 5, 2, mozjs_sym_html_comment, mozjs_sym_comment, 2404, 2,
      mozjs_anon_sym_LPAREN, mozjs_anon_sym_COLON]"

definition mozjs_small_run_51389 :: "nat list" where
  "mozjs_small_run_51389 =
    [6, 1827, 1, mozjs_anon_sym_LPAREN, 3070, 1, mozjs_sym_identifier, 3072, 1,
      mozjs_anon_sym_LBRACK, 3074, 1, mozjs_sym_private_property_identifier, 790, 1,
      mozjs_sym_arguments, 5, 2, mozjs_sym_html_comment, mozjs_sym_comment]"

definition mozjs_small_run_51409 :: "nat list" where
  "mozjs_small_run_51409 =
    [4, 847, 1, mozjs_anon_sym_EQ, 1472, 1, mozjs_sym__initializer, 5, 2, mozjs_sym_html_comment,
      mozjs_sym_comment, 2908, 3, mozjs_sym__automatic_semicolon, mozjs_anon_sym_COMMA,
      mozjs_anon_sym_SEMI]"

definition mozjs_small_run_51425 :: "nat list" where
  "mozjs_small_run_51425 =
    [6, 3076, 1, mozjs_sym_identifier, 3078, 1, mozjs_anon_sym_GT, 3080, 1,
      mozjs_sym_jsx_identifier, 1725, 1, mozjs_sym_nested_identifier, 1859, 1,
      mozjs_sym_jsx_namespace_name, 5, 2, mozjs_sym_html_comment, mozjs_sym_comment]"

definition mozjs_small_run_51445 :: "nat list" where
  "mozjs_small_run_51445 =
    [3, 3062, 1, mozjs_sym_identifier, 5, 2, mozjs_sym_html_comment, mozjs_sym_comment, 3060, 4,
      mozjs_anon_sym_LBRACE, mozjs_anon_sym_GT, mozjs_sym_jsx_identifier,
      mozjs_anon_sym_SLASH_GT]"

definition mozjs_small_run_51459 :: "nat list" where
  "mozjs_small_run_51459 =
    [6, 3054, 1, mozjs_anon_sym_GT, 3082, 1, mozjs_sym_identifier, 3084, 1,
      mozjs_sym_jsx_identifier, 1169, 1, mozjs_sym_nested_identifier, 1189, 1,
      mozjs_sym_jsx_namespace_name, 5, 2, mozjs_sym_html_comment, mozjs_sym_comment]"

definition mozjs_small_run_51479 :: "nat list" where
  "mozjs_small_run_51479 =
    [3, 3086, 1, mozjs_anon_sym_EQ, 5, 2, mozjs_sym_html_comment, mozjs_sym_comment, 1533, 4,
      mozjs_anon_sym_COMMA, mozjs_anon_sym_RBRACE, mozjs_anon_sym_RPAREN, mozjs_anon_sym_RBRACK]"

definition mozjs_small_run_51493 :: "nat list" where
  "mozjs_small_run_51493 =
    [4, 3091, 1, mozjs_anon_sym_of, 3093, 1, mozjs_anon_sym_in, 5, 2, mozjs_sym_html_comment,
      mozjs_sym_comment, 3089, 3, mozjs_sym__automatic_semicolon, mozjs_anon_sym_COMMA,
      mozjs_anon_sym_SEMI]"

definition mozjs_small_run_51509 :: "nat list" where
  "mozjs_small_run_51509 =
    [4, 3097, 1, mozjs_anon_sym_of, 3099, 1, mozjs_anon_sym_in, 5, 2, mozjs_sym_html_comment,
      mozjs_sym_comment, 3095, 3, mozjs_sym__automatic_semicolon, mozjs_anon_sym_COMMA,
      mozjs_anon_sym_SEMI]"

definition mozjs_small_run_51525 :: "nat list" where
  "mozjs_small_run_51525 =
    [6, 3010, 1, mozjs_anon_sym_LBRACE, 3012, 1, mozjs_anon_sym_extends, 3101, 1,
      mozjs_sym_identifier, 756, 1, mozjs_sym_class_body, 1750, 1, mozjs_sym_class_heritage, 5,
      2, mozjs_sym_html_comment, mozjs_sym_comment]"

definition mozjs_small_run_51545 :: "nat list" where
  "mozjs_small_run_51545 =
    [6, 3010, 1, mozjs_anon_sym_LBRACE, 3012, 1, mozjs_anon_sym_extends, 3103, 1,
      mozjs_sym_identifier, 799, 1, mozjs_sym_class_body, 1517, 1, mozjs_sym_class_heritage, 5,
      2, mozjs_sym_html_comment, mozjs_sym_comment]"

definition mozjs_small_run_51565 :: "nat list" where
  "mozjs_small_run_51565 =
    [3, 3107, 1, mozjs_anon_sym_LT, 5, 2, mozjs_sym_html_comment, mozjs_sym_comment, 3105, 4,
      mozjs_sym_jsx_text, mozjs_anon_sym_LBRACE, mozjs_sym_html_character_reference,
      mozjs_anon_sym_LT_SLASH]"

definition mozjs_small_run_51579 :: "nat list" where
  "mozjs_small_run_51579 =
    [3, 1620, 1, mozjs_anon_sym_LT, 5, 2, mozjs_sym_html_comment, mozjs_sym_comment, 1622, 4,
      mozjs_sym_jsx_text, mozjs_anon_sym_LBRACE, mozjs_sym_html_character_reference,
      mozjs_anon_sym_LT_SLASH]"

definition mozjs_small_run_51593 :: "nat list" where
  "mozjs_small_run_51593 =
    [2, 5, 2, mozjs_sym_html_comment, mozjs_sym_comment, 1533, 5, mozjs_anon_sym_COMMA,
      mozjs_anon_sym_RBRACE, mozjs_anon_sym_RPAREN, mozjs_anon_sym_EQ, mozjs_anon_sym_RBRACK]"

definition mozjs_small_run_51605 :: "nat list" where
  "mozjs_small_run_51605 =
    [3, 3109, 1, mozjs_sym_identifier, 5, 2, mozjs_sym_html_comment, mozjs_sym_comment, 3111, 4,
      mozjs_anon_sym_LBRACE, mozjs_anon_sym_GT, mozjs_sym_jsx_identifier,
      mozjs_anon_sym_SLASH_GT]"

definition mozjs_small_run_51619 :: "nat list" where
  "mozjs_small_run_51619 =
    [3, 3113, 1, mozjs_sym_identifier, 5, 2, mozjs_sym_html_comment, mozjs_sym_comment, 3115, 4,
      mozjs_anon_sym_LBRACE, mozjs_anon_sym_GT, mozjs_sym_jsx_identifier,
      mozjs_anon_sym_SLASH_GT]"

definition mozjs_small_run_51633 :: "nat list" where
  "mozjs_small_run_51633 =
    [3, 1676, 1, mozjs_anon_sym_LT, 5, 2, mozjs_sym_html_comment, mozjs_sym_comment, 1678, 4,
      mozjs_sym_jsx_text, mozjs_anon_sym_LBRACE, mozjs_sym_html_character_reference,
      mozjs_anon_sym_LT_SLASH]"

definition mozjs_small_run_51647 :: "nat list" where
  "mozjs_small_run_51647 =
    [3, 1742, 1, mozjs_anon_sym_LT, 5, 2, mozjs_sym_html_comment, mozjs_sym_comment, 1744, 4,
      mozjs_sym_jsx_text, mozjs_anon_sym_LBRACE, mozjs_sym_html_character_reference,
      mozjs_anon_sym_LT_SLASH]"

definition mozjs_small_run_51661 :: "nat list" where
  "mozjs_small_run_51661 =
    [3, 1746, 1, mozjs_anon_sym_LT, 5, 2, mozjs_sym_html_comment, mozjs_sym_comment, 1748, 4,
      mozjs_sym_jsx_text, mozjs_anon_sym_LBRACE, mozjs_sym_html_character_reference,
      mozjs_anon_sym_LT_SLASH]"

definition mozjs_small_run_51675 :: "nat list" where
  "mozjs_small_run_51675 =
    [3, 1684, 1, mozjs_anon_sym_LT, 5, 2, mozjs_sym_html_comment, mozjs_sym_comment, 1686, 4,
      mozjs_sym_jsx_text, mozjs_anon_sym_LBRACE, mozjs_sym_html_character_reference,
      mozjs_anon_sym_LT_SLASH]"

definition mozjs_small_run_51689 :: "nat list" where
  "mozjs_small_run_51689 =
    [3, 1684, 1, mozjs_anon_sym_LT, 5, 2, mozjs_sym_html_comment, mozjs_sym_comment, 1686, 4,
      mozjs_sym_jsx_text, mozjs_anon_sym_LBRACE, mozjs_sym_html_character_reference,
      mozjs_anon_sym_LT_SLASH]"

definition mozjs_small_run_51703 :: "nat list" where
  "mozjs_small_run_51703 =
    [3, 1684, 1, mozjs_anon_sym_LT, 5, 2, mozjs_sym_html_comment, mozjs_sym_comment, 1686, 4,
      mozjs_sym_jsx_text, mozjs_anon_sym_LBRACE, mozjs_sym_html_character_reference,
      mozjs_anon_sym_LT_SLASH]"

definition mozjs_small_run_51717 :: "nat list" where
  "mozjs_small_run_51717 =
    [3, 1684, 1, mozjs_anon_sym_LT, 5, 2, mozjs_sym_html_comment, mozjs_sym_comment, 1686, 4,
      mozjs_sym_jsx_text, mozjs_anon_sym_LBRACE, mozjs_sym_html_character_reference,
      mozjs_anon_sym_LT_SLASH]"

definition mozjs_small_run_51731 :: "nat list" where
  "mozjs_small_run_51731 =
    [3, 1641, 1, mozjs_anon_sym_LT, 5, 2, mozjs_sym_html_comment, mozjs_sym_comment, 1643, 4,
      mozjs_sym_jsx_text, mozjs_anon_sym_LBRACE, mozjs_sym_html_character_reference,
      mozjs_anon_sym_LT_SLASH]"

definition mozjs_small_run_51745 :: "nat list" where
  "mozjs_small_run_51745 =
    [6, 3054, 1, mozjs_anon_sym_GT, 3117, 1, mozjs_sym_identifier, 3119, 1,
      mozjs_sym_jsx_identifier, 1170, 1, mozjs_sym_nested_identifier, 1188, 1,
      mozjs_sym_jsx_namespace_name, 5, 2, mozjs_sym_html_comment, mozjs_sym_comment]"

definition mozjs_small_run_51765 :: "nat list" where
  "mozjs_small_run_51765 =
    [6, 1578, 1, mozjs_anon_sym_LPAREN, 3121, 1, mozjs_sym_identifier, 3123, 1,
      mozjs_anon_sym_LBRACK, 3125, 1, mozjs_sym_private_property_identifier, 640, 1,
      mozjs_sym_arguments, 5, 2, mozjs_sym_html_comment, mozjs_sym_comment]"

definition mozjs_small_run_51785 :: "nat list" where
  "mozjs_small_run_51785 =
    [3, 1620, 1, mozjs_sym_identifier, 5, 2, mozjs_sym_html_comment, mozjs_sym_comment, 1622, 4,
      mozjs_anon_sym_LBRACE, mozjs_anon_sym_GT, mozjs_sym_jsx_identifier,
      mozjs_anon_sym_SLASH_GT]"

definition mozjs_small_run_51799 :: "nat list" where
  "mozjs_small_run_51799 =
    [6, 93, 1, mozjs_anon_sym_AT, 3127, 1, mozjs_anon_sym_export, 3129, 1, mozjs_anon_sym_class,
      1050, 1, mozjs_aux_sym_export_statement_repeat1, 1112, 1, mozjs_sym_decorator, 5, 2,
      mozjs_sym_html_comment, mozjs_sym_comment]"

definition mozjs_small_run_51819 :: "nat list" where
  "mozjs_small_run_51819 =
    [3, 3131, 1, mozjs_anon_sym_EQ, 5, 2, mozjs_sym_html_comment, mozjs_sym_comment, 1533, 4,
      mozjs_anon_sym_COMMA, mozjs_anon_sym_RBRACE, mozjs_anon_sym_RPAREN, mozjs_anon_sym_RBRACK]"

definition mozjs_small_run_51833 :: "nat list" where
  "mozjs_small_run_51833 =
    [3, 3134, 1, mozjs_anon_sym_EQ, 5, 2, mozjs_sym_html_comment, mozjs_sym_comment, 1544, 4,
      mozjs_anon_sym_COMMA, mozjs_anon_sym_RBRACE, mozjs_anon_sym_RPAREN, mozjs_anon_sym_RBRACK]"

definition mozjs_small_run_51847 :: "nat list" where
  "mozjs_small_run_51847 =
    [3, 1676, 1, mozjs_sym_identifier, 5, 2, mozjs_sym_html_comment, mozjs_sym_comment, 1678, 4,
      mozjs_anon_sym_LBRACE, mozjs_anon_sym_GT, mozjs_sym_jsx_identifier,
      mozjs_anon_sym_SLASH_GT]"

definition mozjs_small_run_51861 :: "nat list" where
  "mozjs_small_run_51861 =
    [6, 3136, 1, mozjs_sym_identifier, 3138, 1, mozjs_anon_sym_GT, 3140, 1,
      mozjs_sym_jsx_identifier, 1618, 1, mozjs_sym_nested_identifier, 1837, 1,
      mozjs_sym_jsx_namespace_name, 5, 2, mozjs_sym_html_comment, mozjs_sym_comment]"

definition mozjs_small_run_51881 :: "nat list" where
  "mozjs_small_run_51881 =
    [3, 1742, 1, mozjs_sym_identifier, 5, 2, mozjs_sym_html_comment, mozjs_sym_comment, 1744, 4,
      mozjs_anon_sym_LBRACE, mozjs_anon_sym_GT, mozjs_sym_jsx_identifier,
      mozjs_anon_sym_SLASH_GT]"

definition mozjs_small_run_51895 :: "nat list" where
  "mozjs_small_run_51895 =
    [3, 1746, 1, mozjs_sym_identifier, 5, 2, mozjs_sym_html_comment, mozjs_sym_comment, 1748, 4,
      mozjs_anon_sym_LBRACE, mozjs_anon_sym_GT, mozjs_sym_jsx_identifier,
      mozjs_anon_sym_SLASH_GT]"

definition mozjs_small_run_51909 :: "nat list" where
  "mozjs_small_run_51909 =
    [3, 3144, 1, mozjs_anon_sym_LT, 5, 2, mozjs_sym_html_comment, mozjs_sym_comment, 3142, 4,
      mozjs_sym_jsx_text, mozjs_anon_sym_LBRACE, mozjs_sym_html_character_reference,
      mozjs_anon_sym_LT_SLASH]"

definition mozjs_small_run_51923 :: "nat list" where
  "mozjs_small_run_51923 =
    [3, 1684, 1, mozjs_sym_identifier, 5, 2, mozjs_sym_html_comment, mozjs_sym_comment, 1686, 4,
      mozjs_anon_sym_LBRACE, mozjs_anon_sym_GT, mozjs_sym_jsx_identifier,
      mozjs_anon_sym_SLASH_GT]"

definition mozjs_small_run_51937 :: "nat list" where
  "mozjs_small_run_51937 =
    [3, 1684, 1, mozjs_sym_identifier, 5, 2, mozjs_sym_html_comment, mozjs_sym_comment, 1686, 4,
      mozjs_anon_sym_LBRACE, mozjs_anon_sym_GT, mozjs_sym_jsx_identifier,
      mozjs_anon_sym_SLASH_GT]"

definition mozjs_small_run_51951 :: "nat list" where
  "mozjs_small_run_51951 =
    [3, 1684, 1, mozjs_sym_identifier, 5, 2, mozjs_sym_html_comment, mozjs_sym_comment, 1686, 4,
      mozjs_anon_sym_LBRACE, mozjs_anon_sym_GT, mozjs_sym_jsx_identifier,
      mozjs_anon_sym_SLASH_GT]"

definition mozjs_small_run_51965 :: "nat list" where
  "mozjs_small_run_51965 =
    [3, 1684, 1, mozjs_sym_identifier, 5, 2, mozjs_sym_html_comment, mozjs_sym_comment, 1686, 4,
      mozjs_anon_sym_LBRACE, mozjs_anon_sym_GT, mozjs_sym_jsx_identifier,
      mozjs_anon_sym_SLASH_GT]"

definition mozjs_small_run_51979 :: "nat list" where
  "mozjs_small_run_51979 =
    [3, 1641, 1, mozjs_sym_identifier, 5, 2, mozjs_sym_html_comment, mozjs_sym_comment, 1643, 4,
      mozjs_anon_sym_LBRACE, mozjs_anon_sym_GT, mozjs_sym_jsx_identifier,
      mozjs_anon_sym_SLASH_GT]"

definition mozjs_small_run_51993 :: "nat list" where
  "mozjs_small_run_51993 =
    [3, 3146, 1, mozjs_sym_identifier, 5, 2, mozjs_sym_html_comment, mozjs_sym_comment, 3148, 4,
      mozjs_anon_sym_LBRACE, mozjs_anon_sym_GT, mozjs_sym_jsx_identifier,
      mozjs_anon_sym_SLASH_GT]"

definition mozjs_small_run_52007 :: "nat list" where
  "mozjs_small_run_52007 =
    [6, 2324, 1, mozjs_anon_sym_COMMA, 2404, 1, mozjs_anon_sym_COLON, 2406, 1, mozjs_anon_sym_EQ,
      3150, 1, mozjs_anon_sym_RBRACE, 1414, 1, mozjs_aux_sym_object_pattern_repeat1, 5, 2,
      mozjs_sym_html_comment, mozjs_sym_comment]"

definition mozjs_small_run_52027 :: "nat list" where
  "mozjs_small_run_52027 =
    [2, 5, 2, mozjs_sym_html_comment, mozjs_sym_comment, 1716, 5, mozjs_sym__automatic_semicolon,
      mozjs_anon_sym_with, mozjs_anon_sym_LPAREN, mozjs_anon_sym_SEMI, mozjs_anon_sym_EQ]"

definition mozjs_small_run_52039 :: "nat list" where
  "mozjs_small_run_52039 =
    [6, 3054, 1, mozjs_anon_sym_GT, 3152, 1, mozjs_sym_identifier, 3154, 1,
      mozjs_sym_jsx_identifier, 1166, 1, mozjs_sym_nested_identifier, 1187, 1,
      mozjs_sym_jsx_namespace_name, 5, 2, mozjs_sym_html_comment, mozjs_sym_comment]"

definition mozjs_small_run_52059 :: "nat list" where
  "mozjs_small_run_52059 =
    [5, 3010, 1, mozjs_anon_sym_LBRACE, 3156, 1, mozjs_anon_sym_extends, 753, 1,
      mozjs_sym_class_body, 1540, 1, mozjs_sym_class_heritage, 5, 2, mozjs_sym_html_comment,
      mozjs_sym_comment]"

definition mozjs_small_run_52076 :: "nat list" where
  "mozjs_small_run_52076 =
    [5, 93, 1, mozjs_anon_sym_AT, 3129, 1, mozjs_anon_sym_class, 1050, 1,
      mozjs_aux_sym_export_statement_repeat1, 1112, 1, mozjs_sym_decorator, 5, 2,
      mozjs_sym_html_comment, mozjs_sym_comment]"

definition mozjs_small_run_52093 :: "nat list" where
  "mozjs_small_run_52093 =
    [5, 2938, 1, mozjs_anon_sym_LPAREN, 3158, 1, mozjs_sym_identifier, 3160, 1,
      mozjs_anon_sym_STAR, 1548, 1, mozjs_sym_formal_parameters, 5, 2, mozjs_sym_html_comment,
      mozjs_sym_comment]"

definition mozjs_small_run_52110 :: "nat list" where
  "mozjs_small_run_52110 =
    [5, 3, 1, mozjs_sym_comment, 5, 1, mozjs_sym_html_comment, 3162, 1, mozjs_anon_sym_DQUOTE,
      1404, 1, mozjs_aux_sym_string_repeat1, 3164, 2, mozjs_sym_unescaped_double_string_fragment,
      mozjs_sym_escape_sequence]"

definition mozjs_small_run_52127 :: "nat list" where
  "mozjs_small_run_52127 =
    [5, 3, 1, mozjs_sym_comment, 5, 1, mozjs_sym_html_comment, 3162, 1, mozjs_anon_sym_SQUOTE,
      1405, 1, mozjs_aux_sym_string_repeat2, 3166, 2, mozjs_sym_unescaped_single_string_fragment,
      mozjs_sym_escape_sequence]"

definition mozjs_small_run_52144 :: "nat list" where
  "mozjs_small_run_52144 =
    [4, 1950, 1, mozjs_anon_sym_COMMA, 1366, 1, mozjs_aux_sym_sequence_expression_repeat1, 5, 2,
      mozjs_sym_html_comment, mozjs_sym_comment, 2900, 2, mozjs_sym__automatic_semicolon,
      mozjs_anon_sym_SEMI]"

definition mozjs_small_run_52159 :: "nat list" where
  "mozjs_small_run_52159 =
    [5, 93, 1, mozjs_anon_sym_AT, 3168, 1, mozjs_anon_sym_class, 1050, 1,
      mozjs_aux_sym_export_statement_repeat1, 1112, 1, mozjs_sym_decorator, 5, 2,
      mozjs_sym_html_comment, mozjs_sym_comment]"

definition mozjs_small_run_52176 :: "nat list" where
  "mozjs_small_run_52176 =
    [5, 3, 1, mozjs_sym_comment, 5, 1, mozjs_sym_html_comment, 3170, 1, mozjs_anon_sym_DQUOTE,
      1363, 1, mozjs_aux_sym_string_repeat1, 3172, 2, mozjs_sym_unescaped_double_string_fragment,
      mozjs_sym_escape_sequence]"

definition mozjs_small_run_52193 :: "nat list" where
  "mozjs_small_run_52193 =
    [5, 1827, 1, mozjs_anon_sym_LPAREN, 1831, 1, mozjs_anon_sym_DOT, 3174, 1,
      mozjs_sym_optional_chain, 804, 1, mozjs_sym_arguments, 5, 2, mozjs_sym_html_comment,
      mozjs_sym_comment]"

definition mozjs_small_run_52210 :: "nat list" where
  "mozjs_small_run_52210 =
    [4, 3176, 1, mozjs_anon_sym_COMMA, 1362, 1, mozjs_aux_sym_variable_declaration_repeat1, 5, 2,
      mozjs_sym_html_comment, mozjs_sym_comment, 3178, 2, mozjs_sym__automatic_semicolon,
      mozjs_anon_sym_SEMI]"

definition mozjs_small_run_52225 :: "nat list" where
  "mozjs_small_run_52225 =
    [5, 3156, 1, mozjs_anon_sym_extends, 3180, 1, mozjs_anon_sym_LBRACE, 402, 1,
      mozjs_sym_class_body, 1546, 1, mozjs_sym_class_heritage, 5, 2, mozjs_sym_html_comment,
      mozjs_sym_comment]"

definition mozjs_small_run_52242 :: "nat list" where
  "mozjs_small_run_52242 =
    [4, 3176, 1, mozjs_anon_sym_COMMA, 1406, 1, mozjs_aux_sym_variable_declaration_repeat1, 5, 2,
      mozjs_sym_html_comment, mozjs_sym_comment, 3182, 2, mozjs_sym__automatic_semicolon,
      mozjs_anon_sym_SEMI]"

definition mozjs_small_run_52257 :: "nat list" where
  "mozjs_small_run_52257 =
    [4, 3176, 1, mozjs_anon_sym_COMMA, 1396, 1, mozjs_aux_sym_variable_declaration_repeat1, 5, 2,
      mozjs_sym_html_comment, mozjs_sym_comment, 3184, 2, mozjs_sym__automatic_semicolon,
      mozjs_anon_sym_SEMI]"

definition mozjs_small_run_52272 :: "nat list" where
  "mozjs_small_run_52272 =
    [5, 3, 1, mozjs_sym_comment, 5, 1, mozjs_sym_html_comment, 3186, 1, mozjs_anon_sym_SQUOTE,
      1329, 1, mozjs_aux_sym_string_repeat2, 3188, 2, mozjs_sym_unescaped_single_string_fragment,
      mozjs_sym_escape_sequence]"

definition mozjs_small_run_52289 :: "nat list" where
  "mozjs_small_run_52289 =
    [4, 3176, 1, mozjs_anon_sym_COMMA, 1350, 1, mozjs_aux_sym_variable_declaration_repeat1, 5, 2,
      mozjs_sym_html_comment, mozjs_sym_comment, 3190, 2, mozjs_sym__automatic_semicolon,
      mozjs_anon_sym_SEMI]"

definition mozjs_small_run_52304 :: "nat list" where
  "mozjs_small_run_52304 =
    [5, 1578, 1, mozjs_anon_sym_LPAREN, 1582, 1, mozjs_anon_sym_DOT, 3192, 1,
      mozjs_sym_optional_chain, 639, 1, mozjs_sym_arguments, 5, 2, mozjs_sym_html_comment,
      mozjs_sym_comment]"

definition mozjs_small_run_52321 :: "nat list" where
  "mozjs_small_run_52321 =
    [5, 3, 1, mozjs_sym_comment, 5, 1, mozjs_sym_html_comment, 3194, 1, mozjs_anon_sym_DQUOTE,
      1360, 1, mozjs_aux_sym_string_repeat1, 3196, 2, mozjs_sym_unescaped_double_string_fragment,
      mozjs_sym_escape_sequence]"

definition mozjs_small_run_52338 :: "nat list" where
  "mozjs_small_run_52338 =
    [5, 2938, 1, mozjs_anon_sym_LPAREN, 3198, 1, mozjs_sym_identifier, 3200, 1,
      mozjs_anon_sym_STAR, 1608, 1, mozjs_sym_formal_parameters, 5, 2, mozjs_sym_html_comment,
      mozjs_sym_comment]"

definition mozjs_small_run_52355 :: "nat list" where
  "mozjs_small_run_52355 =
    [5, 2938, 1, mozjs_anon_sym_LPAREN, 3202, 1, mozjs_sym_identifier, 3204, 1,
      mozjs_anon_sym_STAR, 1528, 1, mozjs_sym_formal_parameters, 5, 2, mozjs_sym_html_comment,
      mozjs_sym_comment]"

definition mozjs_small_run_52372 :: "nat list" where
  "mozjs_small_run_52372 =
    [4, 3206, 1, mozjs_anon_sym_EQ, 1530, 1, mozjs_sym__initializer, 5, 2,
      mozjs_sym_html_comment, mozjs_sym_comment, 2917, 2, mozjs_anon_sym_of, mozjs_anon_sym_in]"

definition mozjs_small_run_52387 :: "nat list" where
  "mozjs_small_run_52387 =
    [4, 3206, 1, mozjs_anon_sym_EQ, 1671, 1, mozjs_sym__initializer, 5, 2,
      mozjs_sym_html_comment, mozjs_sym_comment, 2910, 2, mozjs_anon_sym_of, mozjs_anon_sym_in]"

definition mozjs_small_run_52402 :: "nat list" where
  "mozjs_small_run_52402 =
    [5, 3, 1, mozjs_sym_comment, 5, 1, mozjs_sym_html_comment, 3194, 1, mozjs_anon_sym_SQUOTE,
      1361, 1, mozjs_aux_sym_string_repeat2, 3208, 2, mozjs_sym_unescaped_single_string_fragment,
      mozjs_sym_escape_sequence]"

definition mozjs_small_run_52419 :: "nat list" where
  "mozjs_small_run_52419 =
    [6, 3, 1, mozjs_sym_comment, 5, 1, mozjs_sym_html_comment, 3210, 1,
      mozjs_sym_html_character_reference, 3212, 1, mozjs_anon_sym_DQUOTE, 3214, 1,
      mozjs_sym_unescaped_double_jsx_string_fragment, 1357, 1, mozjs_aux_sym__jsx_string_repeat1]"

definition mozjs_small_run_52438 :: "nat list" where
  "mozjs_small_run_52438 =
    [6, 3, 1, mozjs_sym_comment, 5, 1, mozjs_sym_html_comment, 3212, 1, mozjs_anon_sym_SQUOTE,
      3216, 1, mozjs_sym_html_character_reference, 3218, 1,
      mozjs_sym_unescaped_single_jsx_string_fragment, 1368, 1, mozjs_aux_sym__jsx_string_repeat2]"

definition mozjs_small_run_52457 :: "nat list" where
  "mozjs_small_run_52457 =
    [2, 5, 2, mozjs_sym_html_comment, mozjs_sym_comment, 1957, 4, mozjs_sym__automatic_semicolon,
      mozjs_anon_sym_LPAREN, mozjs_anon_sym_SEMI, mozjs_anon_sym_EQ]"

definition mozjs_small_run_52468 :: "nat list" where
  "mozjs_small_run_52468 =
    [4, 3176, 1, mozjs_anon_sym_COMMA, 1406, 1, mozjs_aux_sym_variable_declaration_repeat1, 5, 2,
      mozjs_sym_html_comment, mozjs_sym_comment, 3220, 2, mozjs_sym__automatic_semicolon,
      mozjs_anon_sym_SEMI]"

definition mozjs_small_run_52483 :: "nat list" where
  "mozjs_small_run_52483 =
    [4, 2404, 1, mozjs_anon_sym_COLON, 2406, 1, mozjs_anon_sym_EQ, 5, 2, mozjs_sym_html_comment,
      mozjs_sym_comment, 3222, 2, mozjs_anon_sym_COMMA, mozjs_anon_sym_RBRACE]"

definition mozjs_small_run_52498 :: "nat list" where
  "mozjs_small_run_52498 =
    [3, 5, 2, mozjs_sym_html_comment, mozjs_sym_comment, 2404, 2, mozjs_anon_sym_LPAREN,
      mozjs_anon_sym_COLON, 2474, 2, mozjs_anon_sym_COMMA, mozjs_anon_sym_RBRACE]"

definition mozjs_small_run_52511 :: "nat list" where
  "mozjs_small_run_52511 =
    [5, 93, 1, mozjs_anon_sym_AT, 3066, 1, mozjs_anon_sym_class, 1050, 1,
      mozjs_aux_sym_export_statement_repeat1, 1112, 1, mozjs_sym_decorator, 5, 2,
      mozjs_sym_html_comment, mozjs_sym_comment]"

definition mozjs_small_run_52528 :: "nat list" where
  "mozjs_small_run_52528 =
    [5, 885, 1, mozjs_anon_sym_COMMA, 3224, 1, mozjs_anon_sym_EQ, 3226, 1, mozjs_anon_sym_RBRACK,
      1498, 1, mozjs_aux_sym_array_pattern_repeat1, 5, 2, mozjs_sym_html_comment,
      mozjs_sym_comment]"

definition mozjs_small_run_52545 :: "nat list" where
  "mozjs_small_run_52545 =
    [5, 93, 1, mozjs_anon_sym_AT, 3228, 1, mozjs_anon_sym_class, 1050, 1,
      mozjs_aux_sym_export_statement_repeat1, 1112, 1, mozjs_sym_decorator, 5, 2,
      mozjs_sym_html_comment, mozjs_sym_comment]"

definition mozjs_small_run_52562 :: "nat list" where
  "mozjs_small_run_52562 =
    [5, 3010, 1, mozjs_anon_sym_LBRACE, 3156, 1, mozjs_anon_sym_extends, 742, 1,
      mozjs_sym_class_body, 1625, 1, mozjs_sym_class_heritage, 5, 2, mozjs_sym_html_comment,
      mozjs_sym_comment]"

definition mozjs_small_run_52579 :: "nat list" where
  "mozjs_small_run_52579 =
    [6, 3, 1, mozjs_sym_comment, 5, 1, mozjs_sym_html_comment, 3230, 1,
      mozjs_sym_html_character_reference, 3233, 1, mozjs_anon_sym_DQUOTE, 3235, 1,
      mozjs_sym_unescaped_double_jsx_string_fragment, 1357, 1, mozjs_aux_sym__jsx_string_repeat1]"

definition mozjs_small_run_52598 :: "nat list" where
  "mozjs_small_run_52598 =
    [6, 3, 1, mozjs_sym_comment, 5, 1, mozjs_sym_html_comment, 3238, 1,
      mozjs_sym_html_character_reference, 3240, 1, mozjs_anon_sym_DQUOTE, 3242, 1,
      mozjs_sym_unescaped_double_jsx_string_fragment, 1347, 1, mozjs_aux_sym__jsx_string_repeat1]"

definition mozjs_small_run_52617 :: "nat list" where
  "mozjs_small_run_52617 =
    [6, 3, 1, mozjs_sym_comment, 5, 1, mozjs_sym_html_comment, 3240, 1, mozjs_anon_sym_SQUOTE,
      3244, 1, mozjs_sym_html_character_reference, 3246, 1,
      mozjs_sym_unescaped_single_jsx_string_fragment, 1348, 1, mozjs_aux_sym__jsx_string_repeat2]"

definition mozjs_small_run_52636 :: "nat list" where
  "mozjs_small_run_52636 =
    [5, 3, 1, mozjs_sym_comment, 5, 1, mozjs_sym_html_comment, 3248, 1, mozjs_anon_sym_DQUOTE,
      1404, 1, mozjs_aux_sym_string_repeat1, 3164, 2, mozjs_sym_unescaped_double_string_fragment,
      mozjs_sym_escape_sequence]"

definition mozjs_small_run_52653 :: "nat list" where
  "mozjs_small_run_52653 =
    [5, 3, 1, mozjs_sym_comment, 5, 1, mozjs_sym_html_comment, 3248, 1, mozjs_anon_sym_SQUOTE,
      1405, 1, mozjs_aux_sym_string_repeat2, 3166, 2, mozjs_sym_unescaped_single_string_fragment,
      mozjs_sym_escape_sequence]"

definition mozjs_small_run_52670 :: "nat list" where
  "mozjs_small_run_52670 =
    [4, 3176, 1, mozjs_anon_sym_COMMA, 1406, 1, mozjs_aux_sym_variable_declaration_repeat1, 5, 2,
      mozjs_sym_html_comment, mozjs_sym_comment, 3250, 2, mozjs_sym__automatic_semicolon,
      mozjs_anon_sym_SEMI]"

definition mozjs_small_run_52685 :: "nat list" where
  "mozjs_small_run_52685 =
    [5, 3, 1, mozjs_sym_comment, 5, 1, mozjs_sym_html_comment, 3252, 1, mozjs_anon_sym_DQUOTE,
      1404, 1, mozjs_aux_sym_string_repeat1, 3164, 2, mozjs_sym_unescaped_double_string_fragment,
      mozjs_sym_escape_sequence]"

definition mozjs_small_run_52702 :: "nat list" where
  "mozjs_small_run_52702 =
    [5, 3, 1, mozjs_sym_comment, 5, 1, mozjs_sym_html_comment, 3252, 1, mozjs_anon_sym_SQUOTE,
      1405, 1, mozjs_aux_sym_string_repeat2, 3166, 2, mozjs_sym_unescaped_single_string_fragment,
      mozjs_sym_escape_sequence]"

definition mozjs_small_run_52719 :: "nat list" where
  "mozjs_small_run_52719 =
    [5, 3016, 1, mozjs_anon_sym_LBRACE, 3156, 1, mozjs_anon_sym_extends, 593, 1,
      mozjs_sym_class_body, 1630, 1, mozjs_sym_class_heritage, 5, 2, mozjs_sym_html_comment,
      mozjs_sym_comment]"

definition mozjs_small_run_52736 :: "nat list" where
  "mozjs_small_run_52736 =
    [4, 3254, 1, mozjs_anon_sym_COMMA, 1366, 1, mozjs_aux_sym_sequence_expression_repeat1, 5, 2,
      mozjs_sym_html_comment, mozjs_sym_comment, 1847, 2, mozjs_sym__automatic_semicolon,
      mozjs_anon_sym_SEMI]"

definition mozjs_small_run_52751 :: "nat list" where
  "mozjs_small_run_52751 =
    [4, 3176, 1, mozjs_anon_sym_COMMA, 1406, 1, mozjs_aux_sym_variable_declaration_repeat1, 5, 2,
      mozjs_sym_html_comment, mozjs_sym_comment, 3257, 2, mozjs_sym__automatic_semicolon,
      mozjs_anon_sym_SEMI]"

definition mozjs_small_run_52766 :: "nat list" where
  "mozjs_small_run_52766 =
    [6, 3, 1, mozjs_sym_comment, 5, 1, mozjs_sym_html_comment, 3259, 1,
      mozjs_sym_html_character_reference, 3262, 1, mozjs_anon_sym_SQUOTE, 3264, 1,
      mozjs_sym_unescaped_single_jsx_string_fragment, 1368, 1, mozjs_aux_sym__jsx_string_repeat2]"

definition mozjs_small_run_52785 :: "nat list" where
  "mozjs_small_run_52785 =
    [4, 3176, 1, mozjs_anon_sym_COMMA, 1406, 1, mozjs_aux_sym_variable_declaration_repeat1, 5, 2,
      mozjs_sym_html_comment, mozjs_sym_comment, 3267, 2, mozjs_sym__automatic_semicolon,
      mozjs_anon_sym_SEMI]"

definition mozjs_small_run_52800 :: "nat list" where
  "mozjs_small_run_52800 =
    [5, 3, 1, mozjs_sym_comment, 5, 1, mozjs_sym_html_comment, 3269, 1, mozjs_anon_sym_SQUOTE,
      1375, 1, mozjs_aux_sym_string_repeat2, 3271, 2, mozjs_sym_unescaped_single_string_fragment,
      mozjs_sym_escape_sequence]"

definition mozjs_small_run_52817 :: "nat list" where
  "mozjs_small_run_52817 =
    [4, 3176, 1, mozjs_anon_sym_COMMA, 1369, 1, mozjs_aux_sym_variable_declaration_repeat1, 5, 2,
      mozjs_sym_html_comment, mozjs_sym_comment, 3273, 2, mozjs_sym__automatic_semicolon,
      mozjs_anon_sym_SEMI]"

definition mozjs_small_run_52832 :: "nat list" where
  "mozjs_small_run_52832 =
    [5, 3, 1, mozjs_sym_comment, 5, 1, mozjs_sym_html_comment, 3275, 1, mozjs_anon_sym_DQUOTE,
      1404, 1, mozjs_aux_sym_string_repeat1, 3164, 2, mozjs_sym_unescaped_double_string_fragment,
      mozjs_sym_escape_sequence]"

definition mozjs_small_run_52849 :: "nat list" where
  "mozjs_small_run_52849 =
    [5, 3224, 1, mozjs_anon_sym_EQ, 3277, 1, mozjs_anon_sym_COMMA, 3279, 1,
      mozjs_anon_sym_RPAREN, 1481, 1, mozjs_aux_sym_formal_parameters_repeat1, 5, 2,
      mozjs_sym_html_comment, mozjs_sym_comment]"

definition mozjs_small_run_52866 :: "nat list" where
  "mozjs_small_run_52866 =
    [4, 2748, 1, mozjs_anon_sym_STAR, 2750, 1, mozjs_anon_sym_LBRACE, 5, 2,
      mozjs_sym_html_comment, mozjs_sym_comment, 1802, 2, mozjs_sym_namespace_import,
      mozjs_sym_named_imports]"

definition mozjs_small_run_52881 :: "nat list" where
  "mozjs_small_run_52881 =
    [5, 3, 1, mozjs_sym_comment, 5, 1, mozjs_sym_html_comment, 3275, 1, mozjs_anon_sym_SQUOTE,
      1405, 1, mozjs_aux_sym_string_repeat2, 3166, 2, mozjs_sym_unescaped_single_string_fragment,
      mozjs_sym_escape_sequence]"

definition mozjs_small_run_52898 :: "nat list" where
  "mozjs_small_run_52898 =
    [5, 3281, 1, mozjs_anon_sym_with, 3283, 1, mozjs_anon_sym_SEMI, 3285, 1,
      mozjs_sym__automatic_semicolon, 1739, 1, mozjs_sym_import_attribute, 5, 2,
      mozjs_sym_html_comment, mozjs_sym_comment]"

definition mozjs_small_run_52915 :: "nat list" where
  "mozjs_small_run_52915 =
    [2, 5, 2, mozjs_sym_html_comment, mozjs_sym_comment, 2404, 4, mozjs_sym__automatic_semicolon,
      mozjs_anon_sym_LPAREN, mozjs_anon_sym_SEMI, mozjs_anon_sym_EQ]"

definition mozjs_small_run_52926 :: "nat list" where
  "mozjs_small_run_52926 =
    [4, 3281, 1, mozjs_anon_sym_with, 1667, 1, mozjs_sym_import_attribute, 5, 2,
      mozjs_sym_html_comment, mozjs_sym_comment, 3287, 2, mozjs_sym__automatic_semicolon,
      mozjs_anon_sym_SEMI]"

definition mozjs_small_run_52941 :: "nat list" where
  "mozjs_small_run_52941 =
    [5, 2938, 1, mozjs_anon_sym_LPAREN, 3289, 1, mozjs_sym_identifier, 3291, 1,
      mozjs_anon_sym_STAR, 1608, 1, mozjs_sym_formal_parameters, 5, 2, mozjs_sym_html_comment,
      mozjs_sym_comment]"

definition mozjs_small_run_52958 :: "nat list" where
  "mozjs_small_run_52958 =
    [5, 3010, 1, mozjs_anon_sym_LBRACE, 3156, 1, mozjs_anon_sym_extends, 98, 1,
      mozjs_sym_class_body, 1532, 1, mozjs_sym_class_heritage, 5, 2, mozjs_sym_html_comment,
      mozjs_sym_comment]"

definition mozjs_small_run_52975 :: "nat list" where
  "mozjs_small_run_52975 =
    [5, 2938, 1, mozjs_anon_sym_LPAREN, 3293, 1, mozjs_sym_identifier, 3295, 1,
      mozjs_anon_sym_STAR, 1608, 1, mozjs_sym_formal_parameters, 5, 2, mozjs_sym_html_comment,
      mozjs_sym_comment]"

definition mozjs_small_run_52992 :: "nat list" where
  "mozjs_small_run_52992 =
    [5, 3, 1, mozjs_sym_comment, 5, 1, mozjs_sym_html_comment, 3170, 1, mozjs_anon_sym_SQUOTE,
      1364, 1, mozjs_aux_sym_string_repeat2, 3297, 2, mozjs_sym_unescaped_single_string_fragment,
      mozjs_sym_escape_sequence]"

definition mozjs_small_run_53009 :: "nat list" where
  "mozjs_small_run_53009 =
    [5, 2938, 1, mozjs_anon_sym_LPAREN, 3299, 1, mozjs_sym_identifier, 3301, 1,
      mozjs_anon_sym_STAR, 1528, 1, mozjs_sym_formal_parameters, 5, 2, mozjs_sym_html_comment,
      mozjs_sym_comment]"

definition mozjs_small_run_53026 :: "nat list" where
  "mozjs_small_run_53026 =
    [4, 3303, 1, mozjs_anon_sym_COMMA, 1384, 1, mozjs_aux_sym_array_repeat1, 5, 2,
      mozjs_sym_html_comment, mozjs_sym_comment, 2024, 2, mozjs_anon_sym_RPAREN,
      mozjs_anon_sym_RBRACK]"

definition mozjs_small_run_53041 :: "nat list" where
  "mozjs_small_run_53041 =
    [5, 885, 1, mozjs_anon_sym_COMMA, 3224, 1, mozjs_anon_sym_EQ, 3306, 1, mozjs_anon_sym_RBRACK,
      1452, 1, mozjs_aux_sym_array_pattern_repeat1, 5, 2, mozjs_sym_html_comment,
      mozjs_sym_comment]"

definition mozjs_small_run_53058 :: "nat list" where
  "mozjs_small_run_53058 =
    [5, 3010, 1, mozjs_anon_sym_LBRACE, 3156, 1, mozjs_anon_sym_extends, 770, 1,
      mozjs_sym_class_body, 1645, 1, mozjs_sym_class_heritage, 5, 2, mozjs_sym_html_comment,
      mozjs_sym_comment]"

definition mozjs_small_run_53075 :: "nat list" where
  "mozjs_small_run_53075 =
    [2, 5, 2, mozjs_sym_html_comment, mozjs_sym_comment, 3308, 4, mozjs_sym__template_chars,
      mozjs_sym_escape_sequence, mozjs_anon_sym_BQUOTE, mozjs_anon_sym_DOLLAR_LBRACE]"

definition mozjs_small_run_53086 :: "nat list" where
  "mozjs_small_run_53086 =
    [2, 5, 2, mozjs_sym_html_comment, mozjs_sym_comment, 1925, 4, mozjs_anon_sym_of,
      mozjs_anon_sym_RPAREN, mozjs_anon_sym_in, mozjs_anon_sym_EQ]"

definition mozjs_small_run_53097 :: "nat list" where
  "mozjs_small_run_53097 =
    [2, 5, 2, mozjs_sym_html_comment, mozjs_sym_comment, 1921, 4, mozjs_anon_sym_of,
      mozjs_anon_sym_RPAREN, mozjs_anon_sym_in, mozjs_anon_sym_EQ]"

definition mozjs_small_run_53108 :: "nat list" where
  "mozjs_small_run_53108 =
    [5, 3016, 1, mozjs_anon_sym_LBRACE, 3156, 1, mozjs_anon_sym_extends, 604, 1,
      mozjs_sym_class_body, 1675, 1, mozjs_sym_class_heritage, 5, 2, mozjs_sym_html_comment,
      mozjs_sym_comment]"

definition mozjs_small_run_53125 :: "nat list" where
  "mozjs_small_run_53125 =
    [4, 3176, 1, mozjs_anon_sym_COMMA, 1367, 1, mozjs_aux_sym_variable_declaration_repeat1, 5, 2,
      mozjs_sym_html_comment, mozjs_sym_comment, 3310, 2, mozjs_sym__automatic_semicolon,
      mozjs_anon_sym_SEMI]"

definition mozjs_small_run_53140 :: "nat list" where
  "mozjs_small_run_53140 =
    [5, 3, 1, mozjs_sym_comment, 5, 1, mozjs_sym_html_comment, 3186, 1, mozjs_anon_sym_DQUOTE,
      1328, 1, mozjs_aux_sym_string_repeat1, 3312, 2, mozjs_sym_unescaped_double_string_fragment,
      mozjs_sym_escape_sequence]"

definition mozjs_small_run_53157 :: "nat list" where
  "mozjs_small_run_53157 =
    [4, 3176, 1, mozjs_anon_sym_COMMA, 1336, 1, mozjs_aux_sym_variable_declaration_repeat1, 5, 2,
      mozjs_sym_html_comment, mozjs_sym_comment, 3314, 2, mozjs_sym__automatic_semicolon,
      mozjs_anon_sym_SEMI]"

definition mozjs_small_run_53172 :: "nat list" where
  "mozjs_small_run_53172 =
    [5, 2938, 1, mozjs_anon_sym_LPAREN, 3316, 1, mozjs_sym_identifier, 3318, 1,
      mozjs_anon_sym_STAR, 1524, 1, mozjs_sym_formal_parameters, 5, 2, mozjs_sym_html_comment,
      mozjs_sym_comment]"

definition mozjs_small_run_53189 :: "nat list" where
  "mozjs_small_run_53189 =
    [5, 93, 1, mozjs_anon_sym_AT, 3320, 1, mozjs_anon_sym_class, 1050, 1,
      mozjs_aux_sym_export_statement_repeat1, 1112, 1, mozjs_sym_decorator, 5, 2,
      mozjs_sym_html_comment, mozjs_sym_comment]"

definition mozjs_small_run_53206 :: "nat list" where
  "mozjs_small_run_53206 =
    [4, 3176, 1, mozjs_anon_sym_COMMA, 1406, 1, mozjs_aux_sym_variable_declaration_repeat1, 5, 2,
      mozjs_sym_html_comment, mozjs_sym_comment, 3322, 2, mozjs_sym__automatic_semicolon,
      mozjs_anon_sym_SEMI]"

definition mozjs_small_run_53221 :: "nat list" where
  "mozjs_small_run_53221 =
    [5, 3010, 1, mozjs_anon_sym_LBRACE, 3156, 1, mozjs_anon_sym_extends, 94, 1,
      mozjs_sym_class_body, 1626, 1, mozjs_sym_class_heritage, 5, 2, mozjs_sym_html_comment,
      mozjs_sym_comment]"

definition mozjs_small_run_53238 :: "nat list" where
  "mozjs_small_run_53238 =
    [5, 3156, 1, mozjs_anon_sym_extends, 3180, 1, mozjs_anon_sym_LBRACE, 407, 1,
      mozjs_sym_class_body, 1571, 1, mozjs_sym_class_heritage, 5, 2, mozjs_sym_html_comment,
      mozjs_sym_comment]"

definition mozjs_small_run_53255 :: "nat list" where
  "mozjs_small_run_53255 =
    [2, 5, 2, mozjs_sym_html_comment, mozjs_sym_comment, 1923, 4, mozjs_anon_sym_of,
      mozjs_anon_sym_RPAREN, mozjs_anon_sym_in, mozjs_anon_sym_EQ]"

definition mozjs_small_run_53266 :: "nat list" where
  "mozjs_small_run_53266 =
    [4, 3324, 1, mozjs_anon_sym_from, 1748, 1, mozjs_sym__from_clause, 5, 2,
      mozjs_sym_html_comment, mozjs_sym_comment, 3326, 2, mozjs_sym__automatic_semicolon,
      mozjs_anon_sym_SEMI]"

definition mozjs_small_run_53281 :: "nat list" where
  "mozjs_small_run_53281 =
    [3, 3328, 1, mozjs_anon_sym_EQ, 5, 2, mozjs_sym_html_comment, mozjs_sym_comment, 1544, 3,
      mozjs_anon_sym_COMMA, mozjs_anon_sym_RBRACE, mozjs_anon_sym_RBRACK]"

definition mozjs_small_run_53294 :: "nat list" where
  "mozjs_small_run_53294 =
    [5, 3010, 1, mozjs_anon_sym_LBRACE, 3156, 1, mozjs_anon_sym_extends, 754, 1,
      mozjs_sym_class_body, 1754, 1, mozjs_sym_class_heritage, 5, 2, mozjs_sym_html_comment,
      mozjs_sym_comment]"

definition mozjs_small_run_53311 :: "nat list" where
  "mozjs_small_run_53311 =
    [5, 2938, 1, mozjs_anon_sym_LPAREN, 3330, 1, mozjs_sym_identifier, 3332, 1,
      mozjs_anon_sym_STAR, 1528, 1, mozjs_sym_formal_parameters, 5, 2, mozjs_sym_html_comment,
      mozjs_sym_comment]"

definition mozjs_small_run_53328 :: "nat list" where
  "mozjs_small_run_53328 =
    [5, 3, 1, mozjs_sym_comment, 5, 1, mozjs_sym_html_comment, 3334, 1, mozjs_anon_sym_DQUOTE,
      1404, 1, mozjs_aux_sym_string_repeat1, 3336, 2, mozjs_sym_unescaped_double_string_fragment,
      mozjs_sym_escape_sequence]"

definition mozjs_small_run_53345 :: "nat list" where
  "mozjs_small_run_53345 =
    [5, 3, 1, mozjs_sym_comment, 5, 1, mozjs_sym_html_comment, 3339, 1, mozjs_anon_sym_SQUOTE,
      1405, 1, mozjs_aux_sym_string_repeat2, 3341, 2, mozjs_sym_unescaped_single_string_fragment,
      mozjs_sym_escape_sequence]"

definition mozjs_small_run_53362 :: "nat list" where
  "mozjs_small_run_53362 =
    [4, 3344, 1, mozjs_anon_sym_COMMA, 1406, 1, mozjs_aux_sym_variable_declaration_repeat1, 5, 2,
      mozjs_sym_html_comment, mozjs_sym_comment, 3347, 2, mozjs_sym__automatic_semicolon,
      mozjs_anon_sym_SEMI]"

definition mozjs_small_run_53377 :: "nat list" where
  "mozjs_small_run_53377 =
    [5, 3, 1, mozjs_sym_comment, 5, 1, mozjs_sym_html_comment, 3269, 1, mozjs_anon_sym_DQUOTE,
      1372, 1, mozjs_aux_sym_string_repeat1, 3349, 2, mozjs_sym_unescaped_double_string_fragment,
      mozjs_sym_escape_sequence]"

definition mozjs_small_run_53394 :: "nat list" where
  "mozjs_small_run_53394 =
    [4, 2324, 1, mozjs_anon_sym_COMMA, 3351, 1, mozjs_anon_sym_RBRACE, 1486, 1,
      mozjs_aux_sym_object_pattern_repeat1, 5, 2, mozjs_sym_html_comment, mozjs_sym_comment]"

definition mozjs_small_run_53408 :: "nat list" where
  "mozjs_small_run_53408 =
    [3, 3353, 1, mozjs_sym_identifier, 5, 2, mozjs_sym_html_comment, mozjs_sym_comment, 3355, 2,
      mozjs_sym__automatic_semicolon, mozjs_anon_sym_SEMI]"

definition mozjs_small_run_53420 :: "nat list" where
  "mozjs_small_run_53420 =
    [4, 2938, 1, mozjs_anon_sym_LPAREN, 3357, 1, mozjs_sym_identifier, 1721, 1,
      mozjs_sym_formal_parameters, 5, 2, mozjs_sym_html_comment, mozjs_sym_comment]"

definition mozjs_small_run_53434 :: "nat list" where
  "mozjs_small_run_53434 =
    [4, 2282, 1, mozjs_anon_sym_COMMA, 3359, 1, mozjs_anon_sym_RBRACE, 1485, 1,
      mozjs_aux_sym_object_repeat1, 5, 2, mozjs_sym_html_comment, mozjs_sym_comment]"

definition mozjs_small_run_53448 :: "nat list" where
  "mozjs_small_run_53448 =
    [4, 885, 1, mozjs_anon_sym_COMMA, 3306, 1, mozjs_anon_sym_RBRACK, 1452, 1,
      mozjs_aux_sym_array_pattern_repeat1, 5, 2, mozjs_sym_html_comment, mozjs_sym_comment]"

definition mozjs_small_run_53462 :: "nat list" where
  "mozjs_small_run_53462 =
    [4, 919, 1, mozjs_anon_sym_COMMA, 2046, 1, mozjs_anon_sym_RBRACK, 1451, 1,
      mozjs_aux_sym_array_repeat1, 5, 2, mozjs_sym_html_comment, mozjs_sym_comment]"

definition mozjs_small_run_53476 :: "nat list" where
  "mozjs_small_run_53476 =
    [4, 2324, 1, mozjs_anon_sym_COMMA, 3361, 1, mozjs_anon_sym_RBRACE, 1486, 1,
      mozjs_aux_sym_object_pattern_repeat1, 5, 2, mozjs_sym_html_comment, mozjs_sym_comment]"

definition mozjs_small_run_53490 :: "nat list" where
  "mozjs_small_run_53490 =
    [4, 919, 1, mozjs_anon_sym_COMMA, 2046, 1, mozjs_anon_sym_RBRACK, 1384, 1,
      mozjs_aux_sym_array_repeat1, 5, 2, mozjs_sym_html_comment, mozjs_sym_comment]"

definition mozjs_small_run_53504 :: "nat list" where
  "mozjs_small_run_53504 =
    [4, 885, 1, mozjs_anon_sym_COMMA, 3306, 1, mozjs_anon_sym_RBRACK, 1500, 1,
      mozjs_aux_sym_array_pattern_repeat1, 5, 2, mozjs_sym_html_comment, mozjs_sym_comment]"

definition mozjs_small_run_53518 :: "nat list" where
  "mozjs_small_run_53518 =
    [3, 1911, 1, mozjs_anon_sym_in, 5, 2, mozjs_sym_html_comment, mozjs_sym_comment, 1933, 2,
      mozjs_anon_sym_LPAREN, mozjs_anon_sym_COLON]"

definition mozjs_small_run_53530 :: "nat list" where
  "mozjs_small_run_53530 =
    [4, 919, 1, mozjs_anon_sym_COMMA, 2028, 1, mozjs_anon_sym_RPAREN, 1450, 1,
      mozjs_aux_sym_array_repeat1, 5, 2, mozjs_sym_html_comment, mozjs_sym_comment]"

definition mozjs_small_run_53544 :: "nat list" where
  "mozjs_small_run_53544 =
    [4, 919, 1, mozjs_anon_sym_COMMA, 2028, 1, mozjs_anon_sym_RPAREN, 1384, 1,
      mozjs_aux_sym_array_repeat1, 5, 2, mozjs_sym_html_comment, mozjs_sym_comment]"

definition mozjs_small_run_53558 :: "nat list" where
  "mozjs_small_run_53558 =
    [4, 2324, 1, mozjs_anon_sym_COMMA, 3363, 1, mozjs_anon_sym_RBRACE, 1443, 1,
      mozjs_aux_sym_object_pattern_repeat1, 5, 2, mozjs_sym_html_comment, mozjs_sym_comment]"

definition mozjs_small_run_53572 :: "nat list" where
  "mozjs_small_run_53572 =
    [3, 3365, 1, mozjs_sym_identifier, 5, 2, mozjs_sym_html_comment, mozjs_sym_comment, 3367, 2,
      mozjs_sym__automatic_semicolon, mozjs_anon_sym_SEMI]"

definition mozjs_small_run_53584 :: "nat list" where
  "mozjs_small_run_53584 =
    [4, 2282, 1, mozjs_anon_sym_COMMA, 3369, 1, mozjs_anon_sym_RBRACE, 1444, 1,
      mozjs_aux_sym_object_repeat1, 5, 2, mozjs_sym_html_comment, mozjs_sym_comment]"

definition mozjs_small_run_53598 :: "nat list" where
  "mozjs_small_run_53598 =
    [4, 2324, 1, mozjs_anon_sym_COMMA, 3371, 1, mozjs_anon_sym_RBRACE, 1468, 1,
      mozjs_aux_sym_object_pattern_repeat1, 5, 2, mozjs_sym_html_comment, mozjs_sym_comment]"

definition mozjs_small_run_53612 :: "nat list" where
  "mozjs_small_run_53612 =
    [4, 2282, 1, mozjs_anon_sym_COMMA, 3373, 1, mozjs_anon_sym_RBRACE, 1435, 1,
      mozjs_aux_sym_object_repeat1, 5, 2, mozjs_sym_html_comment, mozjs_sym_comment]"

definition mozjs_small_run_53626 :: "nat list" where
  "mozjs_small_run_53626 =
    [4, 2282, 1, mozjs_anon_sym_COMMA, 3369, 1, mozjs_anon_sym_RBRACE, 1485, 1,
      mozjs_aux_sym_object_repeat1, 5, 2, mozjs_sym_html_comment, mozjs_sym_comment]"

definition mozjs_small_run_53640 :: "nat list" where
  "mozjs_small_run_53640 =
    [4, 2282, 1, mozjs_anon_sym_COMMA, 3373, 1, mozjs_anon_sym_RBRACE, 1485, 1,
      mozjs_aux_sym_object_repeat1, 5, 2, mozjs_sym_html_comment, mozjs_sym_comment]"

definition mozjs_small_run_53654 :: "nat list" where
  "mozjs_small_run_53654 =
    [4, 2282, 1, mozjs_anon_sym_COMMA, 3375, 1, mozjs_anon_sym_RBRACE, 1471, 1,
      mozjs_aux_sym_object_repeat1, 5, 2, mozjs_sym_html_comment, mozjs_sym_comment]"

definition mozjs_small_run_53668 :: "nat list" where
  "mozjs_small_run_53668 =
    [4, 2938, 1, mozjs_anon_sym_LPAREN, 3377, 1, mozjs_anon_sym_COLON, 1637, 1,
      mozjs_sym_formal_parameters, 5, 2, mozjs_sym_html_comment, mozjs_sym_comment]"

definition mozjs_small_run_53682 :: "nat list" where
  "mozjs_small_run_53682 =
    [4, 2938, 1, mozjs_anon_sym_LPAREN, 3379, 1, mozjs_sym_identifier, 1721, 1,
      mozjs_sym_formal_parameters, 5, 2, mozjs_sym_html_comment, mozjs_sym_comment]"

definition mozjs_small_run_53696 :: "nat list" where
  "mozjs_small_run_53696 =
    [4, 2282, 1, mozjs_anon_sym_COMMA, 3375, 1, mozjs_anon_sym_RBRACE, 1485, 1,
      mozjs_aux_sym_object_repeat1, 5, 2, mozjs_sym_html_comment, mozjs_sym_comment]"

definition mozjs_small_run_53710 :: "nat list" where
  "mozjs_small_run_53710 =
    [4, 3121, 1, mozjs_sym_identifier, 3123, 1, mozjs_anon_sym_LBRACK, 3125, 1,
      mozjs_sym_private_property_identifier, 5, 2, mozjs_sym_html_comment, mozjs_sym_comment]"

definition mozjs_small_run_53724 :: "nat list" where
  "mozjs_small_run_53724 =
    [4, 2324, 1, mozjs_anon_sym_COMMA, 3371, 1, mozjs_anon_sym_RBRACE, 1486, 1,
      mozjs_aux_sym_object_pattern_repeat1, 5, 2, mozjs_sym_html_comment, mozjs_sym_comment]"

definition mozjs_small_run_53738 :: "nat list" where
  "mozjs_small_run_53738 =
    [4, 2324, 1, mozjs_anon_sym_COMMA, 3363, 1, mozjs_anon_sym_RBRACE, 1486, 1,
      mozjs_aux_sym_object_pattern_repeat1, 5, 2, mozjs_sym_html_comment, mozjs_sym_comment]"

definition mozjs_small_run_53752 :: "nat list" where
  "mozjs_small_run_53752 =
    [4, 2282, 1, mozjs_anon_sym_COMMA, 3381, 1, mozjs_anon_sym_RBRACE, 1485, 1,
      mozjs_aux_sym_object_repeat1, 5, 2, mozjs_sym_html_comment, mozjs_sym_comment]"

definition mozjs_small_run_53766 :: "nat list" where
  "mozjs_small_run_53766 =
    [4, 2282, 1, mozjs_anon_sym_COMMA, 3383, 1, mozjs_anon_sym_RBRACE, 1485, 1,
      mozjs_aux_sym_object_repeat1, 5, 2, mozjs_sym_html_comment, mozjs_sym_comment]"

definition mozjs_small_run_53780 :: "nat list" where
  "mozjs_small_run_53780 =
    [4, 3070, 1, mozjs_sym_identifier, 3072, 1, mozjs_anon_sym_LBRACK, 3074, 1,
      mozjs_sym_private_property_identifier, 5, 2, mozjs_sym_html_comment, mozjs_sym_comment]"

definition mozjs_small_run_53794 :: "nat list" where
  "mozjs_small_run_53794 =
    [4, 919, 1, mozjs_anon_sym_COMMA, 2070, 1, mozjs_anon_sym_RPAREN, 1441, 1,
      mozjs_aux_sym_array_repeat1, 5, 2, mozjs_sym_html_comment, mozjs_sym_comment]"

definition mozjs_small_run_53808 :: "nat list" where
  "mozjs_small_run_53808 =
    [4, 919, 1, mozjs_anon_sym_COMMA, 2070, 1, mozjs_anon_sym_RPAREN, 1384, 1,
      mozjs_aux_sym_array_repeat1, 5, 2, mozjs_sym_html_comment, mozjs_sym_comment]"

definition mozjs_small_run_53822 :: "nat list" where
  "mozjs_small_run_53822 =
    [4, 2760, 1, mozjs_anon_sym_COLON, 2766, 1, mozjs_anon_sym_DOT, 3385, 1, mozjs_anon_sym_GT,
      5, 2, mozjs_sym_html_comment, mozjs_sym_comment]"

definition mozjs_small_run_53836 :: "nat list" where
  "mozjs_small_run_53836 =
    [4, 2760, 1, mozjs_anon_sym_COLON, 2766, 1, mozjs_anon_sym_DOT, 3387, 1, mozjs_anon_sym_GT,
      5, 2, mozjs_sym_html_comment, mozjs_sym_comment]"

definition mozjs_small_run_53850 :: "nat list" where
  "mozjs_small_run_53850 =
    [4, 919, 1, mozjs_anon_sym_COMMA, 3389, 1, mozjs_anon_sym_RPAREN, 1384, 1,
      mozjs_aux_sym_array_repeat1, 5, 2, mozjs_sym_html_comment, mozjs_sym_comment]"

definition mozjs_small_run_53864 :: "nat list" where
  "mozjs_small_run_53864 =
    [4, 2282, 1, mozjs_anon_sym_COMMA, 3391, 1, mozjs_anon_sym_RBRACE, 1485, 1,
      mozjs_aux_sym_object_repeat1, 5, 2, mozjs_sym_html_comment, mozjs_sym_comment]"

definition mozjs_small_run_53878 :: "nat list" where
  "mozjs_small_run_53878 =
    [4, 2324, 1, mozjs_anon_sym_COMMA, 3393, 1, mozjs_anon_sym_RBRACE, 1486, 1,
      mozjs_aux_sym_object_pattern_repeat1, 5, 2, mozjs_sym_html_comment, mozjs_sym_comment]"

definition mozjs_small_run_53892 :: "nat list" where
  "mozjs_small_run_53892 =
    [4, 2282, 1, mozjs_anon_sym_COMMA, 3395, 1, mozjs_anon_sym_RBRACE, 1485, 1,
      mozjs_aux_sym_object_repeat1, 5, 2, mozjs_sym_html_comment, mozjs_sym_comment]"

definition mozjs_small_run_53906 :: "nat list" where
  "mozjs_small_run_53906 =
    [2, 5, 2, mozjs_sym_html_comment, mozjs_sym_comment, 3397, 3, mozjs_sym__automatic_semicolon,
      mozjs_anon_sym_from, mozjs_anon_sym_SEMI]"

definition mozjs_small_run_53916 :: "nat list" where
  "mozjs_small_run_53916 =
    [4, 2760, 1, mozjs_anon_sym_COLON, 2766, 1, mozjs_anon_sym_DOT, 3399, 1, mozjs_anon_sym_GT,
      5, 2, mozjs_sym_html_comment, mozjs_sym_comment]"

definition mozjs_small_run_53930 :: "nat list" where
  "mozjs_small_run_53930 =
    [3, 3401, 1, mozjs_anon_sym_DOT, 5, 2, mozjs_sym_html_comment, mozjs_sym_comment, 2752, 2,
      mozjs_anon_sym_LPAREN, mozjs_sym_optional_chain]"

definition mozjs_small_run_53942 :: "nat list" where
  "mozjs_small_run_53942 =
    [2, 5, 2, mozjs_sym_html_comment, mozjs_sym_comment, 3403, 3, mozjs_sym__automatic_semicolon,
      mozjs_anon_sym_with, mozjs_anon_sym_SEMI]"

definition mozjs_small_run_53952 :: "nat list" where
  "mozjs_small_run_53952 =
    [4, 3405, 1, mozjs_anon_sym_await, 3407, 1, mozjs_anon_sym_LPAREN, 32, 1,
      mozjs_sym__for_header, 5, 2, mozjs_sym_html_comment, mozjs_sym_comment]"

definition mozjs_small_run_53966 :: "nat list" where
  "mozjs_small_run_53966 =
    [4, 919, 1, mozjs_anon_sym_COMMA, 3409, 1, mozjs_anon_sym_RPAREN, 1384, 1,
      mozjs_aux_sym_array_repeat1, 5, 2, mozjs_sym_html_comment, mozjs_sym_comment]"

definition mozjs_small_run_53980 :: "nat list" where
  "mozjs_small_run_53980 =
    [4, 919, 1, mozjs_anon_sym_COMMA, 3411, 1, mozjs_anon_sym_RBRACK, 1384, 1,
      mozjs_aux_sym_array_repeat1, 5, 2, mozjs_sym_html_comment, mozjs_sym_comment]"

definition mozjs_small_run_53994 :: "nat list" where
  "mozjs_small_run_53994 =
    [4, 885, 1, mozjs_anon_sym_COMMA, 3413, 1, mozjs_anon_sym_RBRACK, 1500, 1,
      mozjs_aux_sym_array_pattern_repeat1, 5, 2, mozjs_sym_html_comment, mozjs_sym_comment]"

definition mozjs_small_run_54008 :: "nat list" where
  "mozjs_small_run_54008 =
    [4, 3324, 1, mozjs_anon_sym_from, 3415, 1, mozjs_anon_sym_as, 1741, 1,
      mozjs_sym__from_clause, 5, 2, mozjs_sym_html_comment, mozjs_sym_comment]"

definition mozjs_small_run_54022 :: "nat list" where
  "mozjs_small_run_54022 =
    [2, 5, 2, mozjs_sym_html_comment, mozjs_sym_comment, 3417, 3, mozjs_sym__automatic_semicolon,
      mozjs_anon_sym_from, mozjs_anon_sym_SEMI]"

definition mozjs_small_run_54032 :: "nat list" where
  "mozjs_small_run_54032 =
    [4, 3419, 1, mozjs_anon_sym_COMMA, 3422, 1, mozjs_anon_sym_RBRACE, 1455, 1,
      mozjs_aux_sym_export_clause_repeat1, 5, 2, mozjs_sym_html_comment, mozjs_sym_comment]"

definition mozjs_small_run_54046 :: "nat list" where
  "mozjs_small_run_54046 =
    [4, 3424, 1, mozjs_anon_sym_await, 3426, 1, mozjs_anon_sym_LPAREN, 46, 1,
      mozjs_sym__for_header, 5, 2, mozjs_sym_html_comment, mozjs_sym_comment]"

definition mozjs_small_run_54060 :: "nat list" where
  "mozjs_small_run_54060 =
    [2, 5, 2, mozjs_sym_html_comment, mozjs_sym_comment, 3089, 3, mozjs_sym__automatic_semicolon,
      mozjs_anon_sym_COMMA, mozjs_anon_sym_SEMI]"

definition mozjs_small_run_54070 :: "nat list" where
  "mozjs_small_run_54070 =
    [2, 5, 2, mozjs_sym_html_comment, mozjs_sym_comment, 3428, 3, mozjs_sym__automatic_semicolon,
      mozjs_anon_sym_from, mozjs_anon_sym_SEMI]"

definition mozjs_small_run_54080 :: "nat list" where
  "mozjs_small_run_54080 =
    [4, 2938, 1, mozjs_anon_sym_LPAREN, 3430, 1, mozjs_sym_identifier, 1535, 1,
      mozjs_sym_formal_parameters, 5, 2, mozjs_sym_html_comment, mozjs_sym_comment]"

definition mozjs_small_run_54094 :: "nat list" where
  "mozjs_small_run_54094 =
    [4, 3432, 1, mozjs_sym_identifier, 1034, 1, mozjs_sym_decorator_member_expression, 1096, 1,
      mozjs_sym_decorator_call_expression, 5, 2, mozjs_sym_html_comment, mozjs_sym_comment]"

definition mozjs_small_run_54108 :: "nat list" where
  "mozjs_small_run_54108 =
    [4, 2938, 1, mozjs_anon_sym_LPAREN, 3434, 1, mozjs_sym_identifier, 1551, 1,
      mozjs_sym_formal_parameters, 5, 2, mozjs_sym_html_comment, mozjs_sym_comment]"

definition mozjs_small_run_54122 :: "nat list" where
  "mozjs_small_run_54122 =
    [4, 1165, 1, mozjs_anon_sym_while, 3436, 1, mozjs_anon_sym_else, 480, 1,
      mozjs_sym_else_clause, 5, 2, mozjs_sym_html_comment, mozjs_sym_comment]"

definition mozjs_small_run_54136 :: "nat list" where
  "mozjs_small_run_54136 =
    [4, 2892, 1, mozjs_anon_sym_RBRACE, 3438, 1, mozjs_anon_sym_COMMA, 1455, 1,
      mozjs_aux_sym_export_clause_repeat1, 5, 2, mozjs_sym_html_comment, mozjs_sym_comment]"

definition mozjs_small_run_54150 :: "nat list" where
  "mozjs_small_run_54150 =
    [4, 919, 1, mozjs_anon_sym_COMMA, 2048, 1, mozjs_anon_sym_RPAREN, 1384, 1,
      mozjs_aux_sym_array_repeat1, 5, 2, mozjs_sym_html_comment, mozjs_sym_comment]"

definition mozjs_small_run_54164 :: "nat list" where
  "mozjs_small_run_54164 =
    [4, 2938, 1, mozjs_anon_sym_LPAREN, 3440, 1, mozjs_sym_identifier, 1636, 1,
      mozjs_sym_formal_parameters, 5, 2, mozjs_sym_html_comment, mozjs_sym_comment]"

definition mozjs_small_run_54178 :: "nat list" where
  "mozjs_small_run_54178 =
    [4, 3442, 1, mozjs_anon_sym_COMMA, 3445, 1, mozjs_anon_sym_RBRACE, 1466, 1,
      mozjs_aux_sym_named_imports_repeat1, 5, 2, mozjs_sym_html_comment, mozjs_sym_comment]"

definition mozjs_small_run_54192 :: "nat list" where
  "mozjs_small_run_54192 =
    [4, 2760, 1, mozjs_anon_sym_COLON, 2766, 1, mozjs_anon_sym_DOT, 3447, 1, mozjs_anon_sym_GT,
      5, 2, mozjs_sym_html_comment, mozjs_sym_comment]"

definition mozjs_small_run_54206 :: "nat list" where
  "mozjs_small_run_54206 =
    [4, 2324, 1, mozjs_anon_sym_COMMA, 3449, 1, mozjs_anon_sym_RBRACE, 1486, 1,
      mozjs_aux_sym_object_pattern_repeat1, 5, 2, mozjs_sym_html_comment, mozjs_sym_comment]"

definition mozjs_small_run_54220 :: "nat list" where
  "mozjs_small_run_54220 =
    [4, 3277, 1, mozjs_anon_sym_COMMA, 3279, 1, mozjs_anon_sym_RPAREN, 1481, 1,
      mozjs_aux_sym_formal_parameters_repeat1, 5, 2, mozjs_sym_html_comment, mozjs_sym_comment]"

definition mozjs_small_run_54234 :: "nat list" where
  "mozjs_small_run_54234 =
    [4, 3451, 1, mozjs_anon_sym_COMMA, 3453, 1, mozjs_anon_sym_RBRACE, 1463, 1,
      mozjs_aux_sym_export_clause_repeat1, 5, 2, mozjs_sym_html_comment, mozjs_sym_comment]"

definition mozjs_small_run_54248 :: "nat list" where
  "mozjs_small_run_54248 =
    [4, 2282, 1, mozjs_anon_sym_COMMA, 3455, 1, mozjs_anon_sym_RBRACE, 1485, 1,
      mozjs_aux_sym_object_repeat1, 5, 2, mozjs_sym_html_comment, mozjs_sym_comment]"

definition mozjs_small_run_54262 :: "nat list" where
  "mozjs_small_run_54262 =
    [2, 5, 2, mozjs_sym_html_comment, mozjs_sym_comment, 3095, 3, mozjs_sym__automatic_semicolon,
      mozjs_anon_sym_COMMA, mozjs_anon_sym_SEMI]"

definition mozjs_small_run_54272 :: "nat list" where
  "mozjs_small_run_54272 =
    [3, 3459, 1, mozjs_sym__automatic_semicolon, 5, 2, mozjs_sym_html_comment, mozjs_sym_comment,
      3457, 2, mozjs_anon_sym_of, mozjs_anon_sym_in]"

definition mozjs_small_run_54284 :: "nat list" where
  "mozjs_small_run_54284 =
    [3, 3463, 1, mozjs_sym__automatic_semicolon, 5, 2, mozjs_sym_html_comment, mozjs_sym_comment,
      3461, 2, mozjs_anon_sym_of, mozjs_anon_sym_in]"

definition mozjs_small_run_54296 :: "nat list" where
  "mozjs_small_run_54296 =
    [4, 919, 1, mozjs_anon_sym_COMMA, 3465, 1, mozjs_anon_sym_RPAREN, 1384, 1,
      mozjs_aux_sym_array_repeat1, 5, 2, mozjs_sym_html_comment, mozjs_sym_comment]"

definition mozjs_small_run_54310 :: "nat list" where
  "mozjs_small_run_54310 =
    [3, 3328, 1, mozjs_anon_sym_EQ, 5, 2, mozjs_sym_html_comment, mozjs_sym_comment, 1554, 2,
      mozjs_anon_sym_of, mozjs_anon_sym_in]"

definition mozjs_small_run_54322 :: "nat list" where
  "mozjs_small_run_54322 =
    [4, 2938, 1, mozjs_anon_sym_LPAREN, 3467, 1, mozjs_anon_sym_COLON, 1637, 1,
      mozjs_sym_formal_parameters, 5, 2, mozjs_sym_html_comment, mozjs_sym_comment]"

definition mozjs_small_run_54336 :: "nat list" where
  "mozjs_small_run_54336 =
    [4, 885, 1, mozjs_anon_sym_COMMA, 3226, 1, mozjs_anon_sym_RBRACK, 1498, 1,
      mozjs_aux_sym_array_pattern_repeat1, 5, 2, mozjs_sym_html_comment, mozjs_sym_comment]"

definition mozjs_small_run_54350 :: "nat list" where
  "mozjs_small_run_54350 =
    [3, 3224, 1, mozjs_anon_sym_EQ, 5, 2, mozjs_sym_html_comment, mozjs_sym_comment, 3469, 2,
      mozjs_anon_sym_COMMA, mozjs_anon_sym_RBRACE]"

definition mozjs_small_run_54362 :: "nat list" where
  "mozjs_small_run_54362 =
    [4, 919, 1, mozjs_anon_sym_COMMA, 2016, 1, mozjs_anon_sym_RBRACK, 1495, 1,
      mozjs_aux_sym_array_repeat1, 5, 2, mozjs_sym_html_comment, mozjs_sym_comment]"

definition mozjs_small_run_54376 :: "nat list" where
  "mozjs_small_run_54376 =
    [4, 931, 1, mozjs_anon_sym_RPAREN, 3471, 1, mozjs_anon_sym_COMMA, 1504, 1,
      mozjs_aux_sym_formal_parameters_repeat1, 5, 2, mozjs_sym_html_comment, mozjs_sym_comment]"

definition mozjs_small_run_54390 :: "nat list" where
  "mozjs_small_run_54390 =
    [4, 919, 1, mozjs_anon_sym_COMMA, 2016, 1, mozjs_anon_sym_RBRACK, 1384, 1,
      mozjs_aux_sym_array_repeat1, 5, 2, mozjs_sym_html_comment, mozjs_sym_comment]"

definition mozjs_small_run_54404 :: "nat list" where
  "mozjs_small_run_54404 =
    [4, 885, 1, mozjs_anon_sym_COMMA, 3226, 1, mozjs_anon_sym_RBRACK, 1500, 1,
      mozjs_aux_sym_array_pattern_repeat1, 5, 2, mozjs_sym_html_comment, mozjs_sym_comment]"

definition mozjs_small_run_54418 :: "nat list" where
  "mozjs_small_run_54418 =
    [4, 3473, 1, mozjs_anon_sym_LBRACE, 3475, 1, mozjs_anon_sym_LPAREN, 390, 1,
      mozjs_sym_statement_block, 5, 2, mozjs_sym_html_comment, mozjs_sym_comment]"

definition mozjs_small_run_54432 :: "nat list" where
  "mozjs_small_run_54432 =
    [4, 3477, 1, mozjs_anon_sym_COMMA, 3480, 1, mozjs_anon_sym_RBRACE, 1485, 1,
      mozjs_aux_sym_object_repeat1, 5, 2, mozjs_sym_html_comment, mozjs_sym_comment]"

definition mozjs_small_run_54446 :: "nat list" where
  "mozjs_small_run_54446 =
    [4, 3482, 1, mozjs_anon_sym_COMMA, 3485, 1, mozjs_anon_sym_RBRACE, 1486, 1,
      mozjs_aux_sym_object_pattern_repeat1, 5, 2, mozjs_sym_html_comment, mozjs_sym_comment]"

definition mozjs_small_run_54460 :: "nat list" where
  "mozjs_small_run_54460 =
    [3, 3487, 1, mozjs_anon_sym_as, 5, 2, mozjs_sym_html_comment, mozjs_sym_comment, 3489, 2,
      mozjs_anon_sym_COMMA, mozjs_anon_sym_RBRACE]"

definition mozjs_small_run_54472 :: "nat list" where
  "mozjs_small_run_54472 =
    [4, 3491, 1, mozjs_anon_sym_COMMA, 3493, 1, mozjs_anon_sym_RBRACE, 1492, 1,
      mozjs_aux_sym_named_imports_repeat1, 5, 2, mozjs_sym_html_comment, mozjs_sym_comment]"

definition mozjs_small_run_54486 :: "nat list" where
  "mozjs_small_run_54486 =
    [2, 5, 2, mozjs_sym_html_comment, mozjs_sym_comment, 3495, 3, mozjs_sym__automatic_semicolon,
      mozjs_anon_sym_from, mozjs_anon_sym_SEMI]"

definition mozjs_small_run_54496 :: "nat list" where
  "mozjs_small_run_54496 =
    [2, 5, 2, mozjs_sym_html_comment, mozjs_sym_comment, 2024, 3, mozjs_anon_sym_COMMA,
      mozjs_anon_sym_RPAREN, mozjs_anon_sym_RBRACK]"

definition mozjs_small_run_54506 :: "nat list" where
  "mozjs_small_run_54506 =
    [3, 3224, 1, mozjs_anon_sym_EQ, 5, 2, mozjs_sym_html_comment, mozjs_sym_comment, 3497, 2,
      mozjs_anon_sym_COMMA, mozjs_anon_sym_RBRACK]"

definition mozjs_small_run_54518 :: "nat list" where
  "mozjs_small_run_54518 =
    [4, 2880, 1, mozjs_anon_sym_RBRACE, 3499, 1, mozjs_anon_sym_COMMA, 1466, 1,
      mozjs_aux_sym_named_imports_repeat1, 5, 2, mozjs_sym_html_comment, mozjs_sym_comment]"

definition mozjs_small_run_54532 :: "nat list" where
  "mozjs_small_run_54532 =
    [3, 3501, 1, mozjs_anon_sym_as, 5, 2, mozjs_sym_html_comment, mozjs_sym_comment, 3503, 2,
      mozjs_anon_sym_COMMA, mozjs_anon_sym_RBRACE]"

definition mozjs_small_run_54544 :: "nat list" where
  "mozjs_small_run_54544 =
    [3, 962, 1, mozjs_sym__automatic_semicolon, 5, 2, mozjs_sym_html_comment, mozjs_sym_comment,
      2917, 2, mozjs_anon_sym_of, mozjs_anon_sym_in]"

definition mozjs_small_run_54556 :: "nat list" where
  "mozjs_small_run_54556 =
    [4, 919, 1, mozjs_anon_sym_COMMA, 3505, 1, mozjs_anon_sym_RBRACK, 1384, 1,
      mozjs_aux_sym_array_repeat1, 5, 2, mozjs_sym_html_comment, mozjs_sym_comment]"

definition mozjs_small_run_54570 :: "nat list" where
  "mozjs_small_run_54570 =
    [3, 3507, 1, mozjs_sym__automatic_semicolon, 5, 2, mozjs_sym_html_comment, mozjs_sym_comment,
      2910, 2, mozjs_anon_sym_of, mozjs_anon_sym_in]"

definition mozjs_small_run_54582 :: "nat list" where
  "mozjs_small_run_54582 =
    [4, 2938, 1, mozjs_anon_sym_LPAREN, 3509, 1, mozjs_sym_identifier, 1535, 1,
      mozjs_sym_formal_parameters, 5, 2, mozjs_sym_html_comment, mozjs_sym_comment]"

definition mozjs_small_run_54596 :: "nat list" where
  "mozjs_small_run_54596 =
    [4, 885, 1, mozjs_anon_sym_COMMA, 3511, 1, mozjs_anon_sym_RBRACK, 1500, 1,
      mozjs_aux_sym_array_pattern_repeat1, 5, 2, mozjs_sym_html_comment, mozjs_sym_comment]"

definition mozjs_small_run_54610 :: "nat list" where
  "mozjs_small_run_54610 =
    [4, 2306, 1, mozjs_anon_sym_DQUOTE, 2308, 1, mozjs_anon_sym_SQUOTE, 1448, 1,
      mozjs_sym_string, 5, 2, mozjs_sym_html_comment, mozjs_sym_comment]"

definition mozjs_small_run_54624 :: "nat list" where
  "mozjs_small_run_54624 =
    [4, 3497, 1, mozjs_anon_sym_RBRACK, 3513, 1, mozjs_anon_sym_COMMA, 1500, 1,
      mozjs_aux_sym_array_pattern_repeat1, 5, 2, mozjs_sym_html_comment, mozjs_sym_comment]"

definition mozjs_small_run_54638 :: "nat list" where
  "mozjs_small_run_54638 =
    [3, 3134, 1, mozjs_anon_sym_EQ, 5, 2, mozjs_sym_html_comment, mozjs_sym_comment, 1554, 2,
      mozjs_anon_sym_of, mozjs_anon_sym_in]"

definition mozjs_small_run_54650 :: "nat list" where
  "mozjs_small_run_54650 =
    [4, 2938, 1, mozjs_anon_sym_LPAREN, 3516, 1, mozjs_sym_identifier, 1721, 1,
      mozjs_sym_formal_parameters, 5, 2, mozjs_sym_html_comment, mozjs_sym_comment]"

definition mozjs_small_run_54664 :: "nat list" where
  "mozjs_small_run_54664 =
    [3, 3224, 1, mozjs_anon_sym_EQ, 5, 2, mozjs_sym_html_comment, mozjs_sym_comment, 3518, 2,
      mozjs_anon_sym_COMMA, mozjs_anon_sym_RPAREN]"

definition mozjs_small_run_54676 :: "nat list" where
  "mozjs_small_run_54676 =
    [4, 3518, 1, mozjs_anon_sym_RPAREN, 3520, 1, mozjs_anon_sym_COMMA, 1504, 1,
      mozjs_aux_sym_formal_parameters_repeat1, 5, 2, mozjs_sym_html_comment, mozjs_sym_comment]"

definition mozjs_small_run_54690 :: "nat list" where
  "mozjs_small_run_54690 =
    [3, 2754, 1, mozjs_anon_sym_DOT, 5, 2, mozjs_sym_html_comment, mozjs_sym_comment, 2752, 2,
      mozjs_anon_sym_LPAREN, mozjs_sym_optional_chain]"

definition mozjs_small_run_54702 :: "nat list" where
  "mozjs_small_run_54702 =
    [4, 2938, 1, mozjs_anon_sym_LPAREN, 3523, 1, mozjs_sym_identifier, 1535, 1,
      mozjs_sym_formal_parameters, 5, 2, mozjs_sym_html_comment, mozjs_sym_comment]"

definition mozjs_small_run_54716 :: "nat list" where
  "mozjs_small_run_54716 =
    [2, 5, 2, mozjs_sym_html_comment, mozjs_sym_comment, 3347, 3, mozjs_sym__automatic_semicolon,
      mozjs_anon_sym_COMMA, mozjs_anon_sym_SEMI]"

definition mozjs_small_run_54726 :: "nat list" where
  "mozjs_small_run_54726 =
    [4, 919, 1, mozjs_anon_sym_COMMA, 2048, 1, mozjs_anon_sym_RPAREN, 1475, 1,
      mozjs_aux_sym_array_repeat1, 5, 2, mozjs_sym_html_comment, mozjs_sym_comment]"

definition mozjs_small_run_54740 :: "nat list" where
  "mozjs_small_run_54740 =
    [3, 3016, 1, mozjs_anon_sym_LBRACE, 601, 1, mozjs_sym_class_body, 5, 2,
      mozjs_sym_html_comment, mozjs_sym_comment]"

definition mozjs_small_run_54751 :: "nat list" where
  "mozjs_small_run_54751 =
    [2, 5, 2, mozjs_sym_html_comment, mozjs_sym_comment, 3525, 2, mozjs_sym__automatic_semicolon,
      mozjs_anon_sym_SEMI]"

definition mozjs_small_run_54760 :: "nat list" where
  "mozjs_small_run_54760 =
    [3, 3527, 1, mozjs_anon_sym_COMMA, 3529, 1, mozjs_anon_sym_from, 5, 2,
      mozjs_sym_html_comment, mozjs_sym_comment]"

definition mozjs_small_run_54771 :: "nat list" where
  "mozjs_small_run_54771 =
    [3, 2414, 1, mozjs_anon_sym_LBRACE, 1084, 1, mozjs_sym_statement_block, 5, 2,
      mozjs_sym_html_comment, mozjs_sym_comment]"

definition mozjs_small_run_54782 :: "nat list" where
  "mozjs_small_run_54782 =
    [3, 3324, 1, mozjs_anon_sym_from, 1376, 1, mozjs_sym__from_clause, 5, 2,
      mozjs_sym_html_comment, mozjs_sym_comment]"

definition mozjs_small_run_54793 :: "nat list" where
  "mozjs_small_run_54793 =
    [3, 2414, 1, mozjs_anon_sym_LBRACE, 1049, 1, mozjs_sym_statement_block, 5, 2,
      mozjs_sym_html_comment, mozjs_sym_comment]"

definition mozjs_small_run_54804 :: "nat list" where
  "mozjs_small_run_54804 =
    [2, 5, 2, mozjs_sym_html_comment, mozjs_sym_comment, 3531, 2, mozjs_sym__automatic_semicolon,
      mozjs_anon_sym_SEMI]"

definition mozjs_small_run_54813 :: "nat list" where
  "mozjs_small_run_54813 =
    [3, 2938, 1, mozjs_anon_sym_LPAREN, 1724, 1, mozjs_sym_formal_parameters, 5, 2,
      mozjs_sym_html_comment, mozjs_sym_comment]"

definition mozjs_small_run_54824 :: "nat list" where
  "mozjs_small_run_54824 =
    [3, 3010, 1, mozjs_anon_sym_LBRACE, 773, 1, mozjs_sym_class_body, 5, 2,
      mozjs_sym_html_comment, mozjs_sym_comment]"

definition mozjs_small_run_54835 :: "nat list" where
  "mozjs_small_run_54835 =
    [3, 3533, 1, mozjs_anon_sym_LPAREN, 62, 1, mozjs_sym_parenthesized_expression, 5, 2,
      mozjs_sym_html_comment, mozjs_sym_comment]"

definition mozjs_small_run_54846 :: "nat list" where
  "mozjs_small_run_54846 =
    [3, 2760, 1, mozjs_anon_sym_COLON, 3399, 1, mozjs_anon_sym_GT, 5, 2, mozjs_sym_html_comment,
      mozjs_sym_comment]"

definition mozjs_small_run_54857 :: "nat list" where
  "mozjs_small_run_54857 =
    [3, 2766, 1, mozjs_anon_sym_DOT, 3399, 1, mozjs_anon_sym_GT, 5, 2, mozjs_sym_html_comment,
      mozjs_sym_comment]"

definition mozjs_small_run_54868 :: "nat list" where
  "mozjs_small_run_54868 =
    [3, 3535, 1, mozjs_anon_sym_LBRACE, 100, 1, mozjs_sym_statement_block, 5, 2,
      mozjs_sym_html_comment, mozjs_sym_comment]"

definition mozjs_small_run_54879 :: "nat list" where
  "mozjs_small_run_54879 =
    [3, 2404, 1, mozjs_anon_sym_LPAREN, 2634, 1, mozjs_anon_sym_EQ_GT, 5, 2,
      mozjs_sym_html_comment, mozjs_sym_comment]"

definition mozjs_small_run_54890 :: "nat list" where
  "mozjs_small_run_54890 =
    [3, 3533, 1, mozjs_anon_sym_LPAREN, 48, 1, mozjs_sym_parenthesized_expression, 5, 2,
      mozjs_sym_html_comment, mozjs_sym_comment]"

definition mozjs_small_run_54901 :: "nat list" where
  "mozjs_small_run_54901 =
    [3, 3537, 1, mozjs_anon_sym_LBRACE, 621, 1, mozjs_sym_statement_block, 5, 2,
      mozjs_sym_html_comment, mozjs_sym_comment]"

definition mozjs_small_run_54912 :: "nat list" where
  "mozjs_small_run_54912 =
    [3, 3533, 1, mozjs_anon_sym_LPAREN, 44, 1, mozjs_sym_parenthesized_expression, 5, 2,
      mozjs_sym_html_comment, mozjs_sym_comment]"

definition mozjs_small_run_54923 :: "nat list" where
  "mozjs_small_run_54923 =
    [3, 3533, 1, mozjs_anon_sym_LPAREN, 49, 1, mozjs_sym_parenthesized_expression, 5, 2,
      mozjs_sym_html_comment, mozjs_sym_comment]"

definition mozjs_small_run_54934 :: "nat list" where
  "mozjs_small_run_54934 =
    [3, 3533, 1, mozjs_anon_sym_LPAREN, 50, 1, mozjs_sym_parenthesized_expression, 5, 2,
      mozjs_sym_html_comment, mozjs_sym_comment]"

definition mozjs_small_run_54945 :: "nat list" where
  "mozjs_small_run_54945 =
    [3, 3535, 1, mozjs_anon_sym_LBRACE, 816, 1, mozjs_sym_statement_block, 5, 2,
      mozjs_sym_html_comment, mozjs_sym_comment]"

definition mozjs_small_run_54956 :: "nat list" where
  "mozjs_small_run_54956 =
    [3, 2404, 1, mozjs_anon_sym_LPAREN, 3539, 1, mozjs_anon_sym_EQ_GT, 5, 2,
      mozjs_sym_html_comment, mozjs_sym_comment]"

definition mozjs_small_run_54967 :: "nat list" where
  "mozjs_small_run_54967 =
    [3, 3091, 1, mozjs_anon_sym_of, 3093, 1, mozjs_anon_sym_in, 5, 2, mozjs_sym_html_comment,
      mozjs_sym_comment]"

definition mozjs_small_run_54978 :: "nat list" where
  "mozjs_small_run_54978 =
    [3, 2938, 1, mozjs_anon_sym_LPAREN, 1521, 1, mozjs_sym_formal_parameters, 5, 2,
      mozjs_sym_html_comment, mozjs_sym_comment]"

definition mozjs_small_run_54989 :: "nat list" where
  "mozjs_small_run_54989 =
    [3, 3010, 1, mozjs_anon_sym_LBRACE, 93, 1, mozjs_sym_class_body, 5, 2,
      mozjs_sym_html_comment, mozjs_sym_comment]"

definition mozjs_small_run_55000 :: "nat list" where
  "mozjs_small_run_55000 =
    [2, 5, 2, mozjs_sym_html_comment, mozjs_sym_comment, 3541, 2, mozjs_anon_sym_LBRACE,
      mozjs_anon_sym_EQ_GT]"

definition mozjs_small_run_55009 :: "nat list" where
  "mozjs_small_run_55009 =
    [2, 5, 2, mozjs_sym_html_comment, mozjs_sym_comment, 3543, 2, mozjs_sym__automatic_semicolon,
      mozjs_anon_sym_SEMI]"

definition mozjs_small_run_55018 :: "nat list" where
  "mozjs_small_run_55018 =
    [3, 3535, 1, mozjs_anon_sym_LBRACE, 788, 1, mozjs_sym_statement_block, 5, 2,
      mozjs_sym_html_comment, mozjs_sym_comment]"

definition mozjs_small_run_55029 :: "nat list" where
  "mozjs_small_run_55029 =
    [3, 3535, 1, mozjs_anon_sym_LBRACE, 97, 1, mozjs_sym_statement_block, 5, 2,
      mozjs_sym_html_comment, mozjs_sym_comment]"

definition mozjs_small_run_55040 :: "nat list" where
  "mozjs_small_run_55040 =
    [3, 3545, 1, mozjs_anon_sym_LPAREN, 51, 1, mozjs_sym__for_header, 5, 2,
      mozjs_sym_html_comment, mozjs_sym_comment]"

definition mozjs_small_run_55051 :: "nat list" where
  "mozjs_small_run_55051 =
    [2, 5, 2, mozjs_sym_html_comment, mozjs_sym_comment, 3422, 2, mozjs_anon_sym_COMMA,
      mozjs_anon_sym_RBRACE]"

definition mozjs_small_run_55060 :: "nat list" where
  "mozjs_small_run_55060 =
    [3, 2938, 1, mozjs_anon_sym_LPAREN, 1553, 1, mozjs_sym_formal_parameters, 5, 2,
      mozjs_sym_html_comment, mozjs_sym_comment]"

definition mozjs_small_run_55071 :: "nat list" where
  "mozjs_small_run_55071 =
    [3, 3010, 1, mozjs_anon_sym_LBRACE, 746, 1, mozjs_sym_class_body, 5, 2,
      mozjs_sym_html_comment, mozjs_sym_comment]"

definition mozjs_small_run_55082 :: "nat list" where
  "mozjs_small_run_55082 =
    [2, 5, 2, mozjs_sym_html_comment, mozjs_sym_comment, 3547, 2, mozjs_anon_sym_COMMA,
      mozjs_anon_sym_RBRACE]"

definition mozjs_small_run_55091 :: "nat list" where
  "mozjs_small_run_55091 =
    [3, 2938, 1, mozjs_anon_sym_LPAREN, 1694, 1, mozjs_sym_formal_parameters, 5, 2,
      mozjs_sym_html_comment, mozjs_sym_comment]"

definition mozjs_small_run_55102 :: "nat list" where
  "mozjs_small_run_55102 =
    [3, 3549, 1, mozjs_anon_sym_LBRACE, 404, 1, mozjs_sym_statement_block, 5, 2,
      mozjs_sym_html_comment, mozjs_sym_comment]"

definition mozjs_small_run_55113 :: "nat list" where
  "mozjs_small_run_55113 =
    [3, 3549, 1, mozjs_anon_sym_LBRACE, 405, 1, mozjs_sym_statement_block, 5, 2,
      mozjs_sym_html_comment, mozjs_sym_comment]"

definition mozjs_small_run_55124 :: "nat list" where
  "mozjs_small_run_55124 =
    [3, 2938, 1, mozjs_anon_sym_LPAREN, 1621, 1, mozjs_sym_formal_parameters, 5, 2,
      mozjs_sym_html_comment, mozjs_sym_comment]"

definition mozjs_small_run_55135 :: "nat list" where
  "mozjs_small_run_55135 =
    [3, 3180, 1, mozjs_anon_sym_LBRACE, 406, 1, mozjs_sym_class_body, 5, 2,
      mozjs_sym_html_comment, mozjs_sym_comment]"

definition mozjs_small_run_55146 :: "nat list" where
  "mozjs_small_run_55146 =
    [2, 5, 2, mozjs_sym_html_comment, mozjs_sym_comment, 1957, 2, mozjs_anon_sym_LPAREN,
      mozjs_anon_sym_COLON]"

definition mozjs_small_run_55155 :: "nat list" where
  "mozjs_small_run_55155 =
    [3, 3537, 1, mozjs_anon_sym_LBRACE, 636, 1, mozjs_sym_statement_block, 5, 2,
      mozjs_sym_html_comment, mozjs_sym_comment]"

definition mozjs_small_run_55166 :: "nat list" where
  "mozjs_small_run_55166 =
    [3, 3473, 1, mozjs_anon_sym_LBRACE, 1060, 1, mozjs_sym_statement_block, 5, 2,
      mozjs_sym_html_comment, mozjs_sym_comment]"

definition mozjs_small_run_55177 :: "nat list" where
  "mozjs_small_run_55177 =
    [3, 2938, 1, mozjs_anon_sym_LPAREN, 1701, 1, mozjs_sym_formal_parameters, 5, 2,
      mozjs_sym_html_comment, mozjs_sym_comment]"

definition mozjs_small_run_55188 :: "nat list" where
  "mozjs_small_run_55188 =
    [3, 3537, 1, mozjs_anon_sym_LBRACE, 651, 1, mozjs_sym_statement_block, 5, 2,
      mozjs_sym_html_comment, mozjs_sym_comment]"

definition mozjs_small_run_55199 :: "nat list" where
  "mozjs_small_run_55199 =
    [3, 3473, 1, mozjs_anon_sym_LBRACE, 1061, 1, mozjs_sym_statement_block, 5, 2,
      mozjs_sym_html_comment, mozjs_sym_comment]"

definition mozjs_small_run_55210 :: "nat list" where
  "mozjs_small_run_55210 =
    [3, 3535, 1, mozjs_anon_sym_LBRACE, 813, 1, mozjs_sym_statement_block, 5, 2,
      mozjs_sym_html_comment, mozjs_sym_comment]"

definition mozjs_small_run_55221 :: "nat list" where
  "mozjs_small_run_55221 =
    [3, 2938, 1, mozjs_anon_sym_LPAREN, 1703, 1, mozjs_sym_formal_parameters, 5, 2,
      mozjs_sym_html_comment, mozjs_sym_comment]"

definition mozjs_small_run_55232 :: "nat list" where
  "mozjs_small_run_55232 =
    [3, 2938, 1, mozjs_anon_sym_LPAREN, 1704, 1, mozjs_sym_formal_parameters, 5, 2,
      mozjs_sym_html_comment, mozjs_sym_comment]"

definition mozjs_small_run_55243 :: "nat list" where
  "mozjs_small_run_55243 =
    [3, 2938, 1, mozjs_anon_sym_LPAREN, 1705, 1, mozjs_sym_formal_parameters, 5, 2,
      mozjs_sym_html_comment, mozjs_sym_comment]"

definition mozjs_small_run_55254 :: "nat list" where
  "mozjs_small_run_55254 =
    [3, 2938, 1, mozjs_anon_sym_LPAREN, 1627, 1, mozjs_sym_formal_parameters, 5, 2,
      mozjs_sym_html_comment, mozjs_sym_comment]"

definition mozjs_small_run_55265 :: "nat list" where
  "mozjs_small_run_55265 =
    [2, 5, 2, mozjs_sym_html_comment, mozjs_sym_comment, 3551, 2, mozjs_sym__automatic_semicolon,
      mozjs_anon_sym_SEMI]"

definition mozjs_small_run_55274 :: "nat list" where
  "mozjs_small_run_55274 =
    [3, 2938, 1, mozjs_anon_sym_LPAREN, 1631, 1, mozjs_sym_formal_parameters, 5, 2,
      mozjs_sym_html_comment, mozjs_sym_comment]"

definition mozjs_small_run_55285 :: "nat list" where
  "mozjs_small_run_55285 =
    [3, 3473, 1, mozjs_anon_sym_LBRACE, 1062, 1, mozjs_sym_statement_block, 5, 2,
      mozjs_sym_html_comment, mozjs_sym_comment]"

definition mozjs_small_run_55296 :: "nat list" where
  "mozjs_small_run_55296 =
    [3, 2938, 1, mozjs_anon_sym_LPAREN, 1706, 1, mozjs_sym_formal_parameters, 5, 2,
      mozjs_sym_html_comment, mozjs_sym_comment]"

definition mozjs_small_run_55307 :: "nat list" where
  "mozjs_small_run_55307 =
    [3, 2938, 1, mozjs_anon_sym_LPAREN, 1624, 1, mozjs_sym_formal_parameters, 5, 2,
      mozjs_sym_html_comment, mozjs_sym_comment]"

definition mozjs_small_run_55318 :: "nat list" where
  "mozjs_small_run_55318 =
    [3, 2938, 1, mozjs_anon_sym_LPAREN, 1638, 1, mozjs_sym_formal_parameters, 5, 2,
      mozjs_sym_html_comment, mozjs_sym_comment]"

definition mozjs_small_run_55329 :: "nat list" where
  "mozjs_small_run_55329 =
    [2, 5, 2, mozjs_sym_html_comment, mozjs_sym_comment, 3553, 2, mozjs_sym__automatic_semicolon,
      mozjs_anon_sym_SEMI]"

definition mozjs_small_run_55338 :: "nat list" where
  "mozjs_small_run_55338 =
    [3, 2938, 1, mozjs_anon_sym_LPAREN, 1642, 1, mozjs_sym_formal_parameters, 5, 2,
      mozjs_sym_html_comment, mozjs_sym_comment]"

definition mozjs_small_run_55349 :: "nat list" where
  "mozjs_small_run_55349 =
    [3, 2938, 1, mozjs_anon_sym_LPAREN, 1711, 1, mozjs_sym_formal_parameters, 5, 2,
      mozjs_sym_html_comment, mozjs_sym_comment]"

definition mozjs_small_run_55360 :: "nat list" where
  "mozjs_small_run_55360 =
    [3, 2938, 1, mozjs_anon_sym_LPAREN, 1715, 1, mozjs_sym_formal_parameters, 5, 2,
      mozjs_sym_html_comment, mozjs_sym_comment]"

definition mozjs_small_run_55371 :: "nat list" where
  "mozjs_small_run_55371 =
    [3, 2938, 1, mozjs_anon_sym_LPAREN, 1717, 1, mozjs_sym_formal_parameters, 5, 2,
      mozjs_sym_html_comment, mozjs_sym_comment]"

definition mozjs_small_run_55382 :: "nat list" where
  "mozjs_small_run_55382 =
    [3, 3473, 1, mozjs_anon_sym_LBRACE, 1064, 1, mozjs_sym_statement_block, 5, 2,
      mozjs_sym_html_comment, mozjs_sym_comment]"

definition mozjs_small_run_55393 :: "nat list" where
  "mozjs_small_run_55393 =
    [3, 2938, 1, mozjs_anon_sym_LPAREN, 1728, 1, mozjs_sym_formal_parameters, 5, 2,
      mozjs_sym_html_comment, mozjs_sym_comment]"

definition mozjs_small_run_55404 :: "nat list" where
  "mozjs_small_run_55404 =
    [3, 3180, 1, mozjs_anon_sym_LBRACE, 399, 1, mozjs_sym_class_body, 5, 2,
      mozjs_sym_html_comment, mozjs_sym_comment]"

definition mozjs_small_run_55415 :: "nat list" where
  "mozjs_small_run_55415 =
    [3, 3533, 1, mozjs_anon_sym_LPAREN, 1751, 1, mozjs_sym_parenthesized_expression, 5, 2,
      mozjs_sym_html_comment, mozjs_sym_comment]"

definition mozjs_small_run_55426 :: "nat list" where
  "mozjs_small_run_55426 =
    [3, 2938, 1, mozjs_anon_sym_LPAREN, 1733, 1, mozjs_sym_formal_parameters, 5, 2,
      mozjs_sym_html_comment, mozjs_sym_comment]"

definition mozjs_small_run_55437 :: "nat list" where
  "mozjs_small_run_55437 =
    [3, 2938, 1, mozjs_anon_sym_LPAREN, 1742, 1, mozjs_sym_formal_parameters, 5, 2,
      mozjs_sym_html_comment, mozjs_sym_comment]"

definition mozjs_small_run_55448 :: "nat list" where
  "mozjs_small_run_55448 =
    [3, 2938, 1, mozjs_anon_sym_LPAREN, 1747, 1, mozjs_sym_formal_parameters, 5, 2,
      mozjs_sym_html_comment, mozjs_sym_comment]"

definition mozjs_small_run_55459 :: "nat list" where
  "mozjs_small_run_55459 =
    [3, 3473, 1, mozjs_anon_sym_LBRACE, 1042, 1, mozjs_sym_statement_block, 5, 2,
      mozjs_sym_html_comment, mozjs_sym_comment]"

definition mozjs_small_run_55470 :: "nat list" where
  "mozjs_small_run_55470 =
    [3, 3473, 1, mozjs_anon_sym_LBRACE, 1071, 1, mozjs_sym_statement_block, 5, 2,
      mozjs_sym_html_comment, mozjs_sym_comment]"

definition mozjs_small_run_55481 :: "nat list" where
  "mozjs_small_run_55481 =
    [3, 3473, 1, mozjs_anon_sym_LBRACE, 1073, 1, mozjs_sym_statement_block, 5, 2,
      mozjs_sym_html_comment, mozjs_sym_comment]"

definition mozjs_small_run_55492 :: "nat list" where
  "mozjs_small_run_55492 =
    [3, 2938, 1, mozjs_anon_sym_LPAREN, 1543, 1, mozjs_sym_formal_parameters, 5, 2,
      mozjs_sym_html_comment, mozjs_sym_comment]"

definition mozjs_small_run_55503 :: "nat list" where
  "mozjs_small_run_55503 =
    [2, 5, 2, mozjs_sym_html_comment, mozjs_sym_comment, 3555, 2, mozjs_anon_sym_COMMA,
      mozjs_anon_sym_RBRACE]"

definition mozjs_small_run_55512 :: "nat list" where
  "mozjs_small_run_55512 =
    [2, 5, 2, mozjs_sym_html_comment, mozjs_sym_comment, 3445, 2, mozjs_anon_sym_COMMA,
      mozjs_anon_sym_RBRACE]"

definition mozjs_small_run_55521 :: "nat list" where
  "mozjs_small_run_55521 =
    [3, 2938, 1, mozjs_anon_sym_LPAREN, 1650, 1, mozjs_sym_formal_parameters, 5, 2,
      mozjs_sym_html_comment, mozjs_sym_comment]"

definition mozjs_small_run_55532 :: "nat list" where
  "mozjs_small_run_55532 =
    [3, 2938, 1, mozjs_anon_sym_LPAREN, 1655, 1, mozjs_sym_formal_parameters, 5, 2,
      mozjs_sym_html_comment, mozjs_sym_comment]"

definition mozjs_small_run_55543 :: "nat list" where
  "mozjs_small_run_55543 =
    [3, 2938, 1, mozjs_anon_sym_LPAREN, 1657, 1, mozjs_sym_formal_parameters, 5, 2,
      mozjs_sym_html_comment, mozjs_sym_comment]"

definition mozjs_small_run_55554 :: "nat list" where
  "mozjs_small_run_55554 =
    [3, 2938, 1, mozjs_anon_sym_LPAREN, 1662, 1, mozjs_sym_formal_parameters, 5, 2,
      mozjs_sym_html_comment, mozjs_sym_comment]"

definition mozjs_small_run_55565 :: "nat list" where
  "mozjs_small_run_55565 =
    [3, 2938, 1, mozjs_anon_sym_LPAREN, 1663, 1, mozjs_sym_formal_parameters, 5, 2,
      mozjs_sym_html_comment, mozjs_sym_comment]"

definition mozjs_small_run_55576 :: "nat list" where
  "mozjs_small_run_55576 =
    [3, 2938, 1, mozjs_anon_sym_LPAREN, 1664, 1, mozjs_sym_formal_parameters, 5, 2,
      mozjs_sym_html_comment, mozjs_sym_comment]"

definition mozjs_small_run_55587 :: "nat list" where
  "mozjs_small_run_55587 =
    [3, 3557, 1, mozjs_sym_identifier, 3559, 1, mozjs_sym_private_property_identifier, 5, 2,
      mozjs_sym_html_comment, mozjs_sym_comment]"

definition mozjs_small_run_55598 :: "nat list" where
  "mozjs_small_run_55598 =
    [3, 2938, 1, mozjs_anon_sym_LPAREN, 1665, 1, mozjs_sym_formal_parameters, 5, 2,
      mozjs_sym_html_comment, mozjs_sym_comment]"

definition mozjs_small_run_55609 :: "nat list" where
  "mozjs_small_run_55609 =
    [3, 2938, 1, mozjs_anon_sym_LPAREN, 1672, 1, mozjs_sym_formal_parameters, 5, 2,
      mozjs_sym_html_comment, mozjs_sym_comment]"

definition mozjs_small_run_55620 :: "nat list" where
  "mozjs_small_run_55620 =
    [3, 2938, 1, mozjs_anon_sym_LPAREN, 1544, 1, mozjs_sym_formal_parameters, 5, 2,
      mozjs_sym_html_comment, mozjs_sym_comment]"

definition mozjs_small_run_55631 :: "nat list" where
  "mozjs_small_run_55631 =
    [3, 2938, 1, mozjs_anon_sym_LPAREN, 1678, 1, mozjs_sym_formal_parameters, 5, 2,
      mozjs_sym_html_comment, mozjs_sym_comment]"

definition mozjs_small_run_55642 :: "nat list" where
  "mozjs_small_run_55642 =
    [3, 3549, 1, mozjs_anon_sym_LBRACE, 401, 1, mozjs_sym_statement_block, 5, 2,
      mozjs_sym_html_comment, mozjs_sym_comment]"

definition mozjs_small_run_55653 :: "nat list" where
  "mozjs_small_run_55653 =
    [3, 2938, 1, mozjs_anon_sym_LPAREN, 1536, 1, mozjs_sym_formal_parameters, 5, 2,
      mozjs_sym_html_comment, mozjs_sym_comment]"

definition mozjs_small_run_55664 :: "nat list" where
  "mozjs_small_run_55664 =
    [3, 2938, 1, mozjs_anon_sym_LPAREN, 1683, 1, mozjs_sym_formal_parameters, 5, 2,
      mozjs_sym_html_comment, mozjs_sym_comment]"

definition mozjs_small_run_55675 :: "nat list" where
  "mozjs_small_run_55675 =
    [3, 2938, 1, mozjs_anon_sym_LPAREN, 1684, 1, mozjs_sym_formal_parameters, 5, 2,
      mozjs_sym_html_comment, mozjs_sym_comment]"

definition mozjs_small_run_55686 :: "nat list" where
  "mozjs_small_run_55686 =
    [3, 2938, 1, mozjs_anon_sym_LPAREN, 1688, 1, mozjs_sym_formal_parameters, 5, 2,
      mozjs_sym_html_comment, mozjs_sym_comment]"

definition mozjs_small_run_55697 :: "nat list" where
  "mozjs_small_run_55697 =
    [3, 2938, 1, mozjs_anon_sym_LPAREN, 1689, 1, mozjs_sym_formal_parameters, 5, 2,
      mozjs_sym_html_comment, mozjs_sym_comment]"

definition mozjs_small_run_55708 :: "nat list" where
  "mozjs_small_run_55708 =
    [3, 2938, 1, mozjs_anon_sym_LPAREN, 1690, 1, mozjs_sym_formal_parameters, 5, 2,
      mozjs_sym_html_comment, mozjs_sym_comment]"

definition mozjs_small_run_55719 :: "nat list" where
  "mozjs_small_run_55719 =
    [3, 2938, 1, mozjs_anon_sym_LPAREN, 1691, 1, mozjs_sym_formal_parameters, 5, 2,
      mozjs_sym_html_comment, mozjs_sym_comment]"

definition mozjs_small_run_55730 :: "nat list" where
  "mozjs_small_run_55730 =
    [3, 2938, 1, mozjs_anon_sym_LPAREN, 1692, 1, mozjs_sym_formal_parameters, 5, 2,
      mozjs_sym_html_comment, mozjs_sym_comment]"

definition mozjs_small_run_55741 :: "nat list" where
  "mozjs_small_run_55741 =
    [3, 2938, 1, mozjs_anon_sym_LPAREN, 1695, 1, mozjs_sym_formal_parameters, 5, 2,
      mozjs_sym_html_comment, mozjs_sym_comment]"

definition mozjs_small_run_55752 :: "nat list" where
  "mozjs_small_run_55752 =
    [3, 2938, 1, mozjs_anon_sym_LPAREN, 1696, 1, mozjs_sym_formal_parameters, 5, 2,
      mozjs_sym_html_comment, mozjs_sym_comment]"

definition mozjs_small_run_55763 :: "nat list" where
  "mozjs_small_run_55763 =
    [3, 2938, 1, mozjs_anon_sym_LPAREN, 1698, 1, mozjs_sym_formal_parameters, 5, 2,
      mozjs_sym_html_comment, mozjs_sym_comment]"

definition mozjs_small_run_55774 :: "nat list" where
  "mozjs_small_run_55774 =
    [3, 2938, 1, mozjs_anon_sym_LPAREN, 1699, 1, mozjs_sym_formal_parameters, 5, 2,
      mozjs_sym_html_comment, mozjs_sym_comment]"

definition mozjs_small_run_55785 :: "nat list" where
  "mozjs_small_run_55785 =
    [3, 2938, 1, mozjs_anon_sym_LPAREN, 1700, 1, mozjs_sym_formal_parameters, 5, 2,
      mozjs_sym_html_comment, mozjs_sym_comment]"

definition mozjs_small_run_55796 :: "nat list" where
  "mozjs_small_run_55796 =
    [3, 2938, 1, mozjs_anon_sym_LPAREN, 1702, 1, mozjs_sym_formal_parameters, 5, 2,
      mozjs_sym_html_comment, mozjs_sym_comment]"

definition mozjs_small_run_55807 :: "nat list" where
  "mozjs_small_run_55807 =
    [3, 3535, 1, mozjs_anon_sym_LBRACE, 704, 1, mozjs_sym_statement_block, 5, 2,
      mozjs_sym_html_comment, mozjs_sym_comment]"

definition mozjs_small_run_55818 :: "nat list" where
  "mozjs_small_run_55818 =
    [2, 5, 2, mozjs_sym_html_comment, mozjs_sym_comment, 723, 2, mozjs_sym__automatic_semicolon,
      mozjs_anon_sym_SEMI]"

definition mozjs_small_run_55827 :: "nat list" where
  "mozjs_small_run_55827 =
    [3, 2760, 1, mozjs_anon_sym_COLON, 3447, 1, mozjs_anon_sym_GT, 5, 2, mozjs_sym_html_comment,
      mozjs_sym_comment]"

definition mozjs_small_run_55838 :: "nat list" where
  "mozjs_small_run_55838 =
    [3, 2938, 1, mozjs_anon_sym_LPAREN, 1716, 1, mozjs_sym_formal_parameters, 5, 2,
      mozjs_sym_html_comment, mozjs_sym_comment]"

definition mozjs_small_run_55849 :: "nat list" where
  "mozjs_small_run_55849 =
    [3, 2938, 1, mozjs_anon_sym_LPAREN, 1718, 1, mozjs_sym_formal_parameters, 5, 2,
      mozjs_sym_html_comment, mozjs_sym_comment]"

definition mozjs_small_run_55860 :: "nat list" where
  "mozjs_small_run_55860 =
    [3, 2938, 1, mozjs_anon_sym_LPAREN, 1722, 1, mozjs_sym_formal_parameters, 5, 2,
      mozjs_sym_html_comment, mozjs_sym_comment]"

definition mozjs_small_run_55871 :: "nat list" where
  "mozjs_small_run_55871 =
    [3, 2938, 1, mozjs_anon_sym_LPAREN, 1723, 1, mozjs_sym_formal_parameters, 5, 2,
      mozjs_sym_html_comment, mozjs_sym_comment]"

definition mozjs_small_run_55882 :: "nat list" where
  "mozjs_small_run_55882 =
    [3, 2938, 1, mozjs_anon_sym_LPAREN, 1726, 1, mozjs_sym_formal_parameters, 5, 2,
      mozjs_sym_html_comment, mozjs_sym_comment]"

definition mozjs_small_run_55893 :: "nat list" where
  "mozjs_small_run_55893 =
    [3, 2938, 1, mozjs_anon_sym_LPAREN, 1727, 1, mozjs_sym_formal_parameters, 5, 2,
      mozjs_sym_html_comment, mozjs_sym_comment]"

definition mozjs_small_run_55904 :: "nat list" where
  "mozjs_small_run_55904 =
    [3, 3070, 1, mozjs_sym_identifier, 3074, 1, mozjs_sym_private_property_identifier, 5, 2,
      mozjs_sym_html_comment, mozjs_sym_comment]"

definition mozjs_small_run_55915 :: "nat list" where
  "mozjs_small_run_55915 =
    [3, 2766, 1, mozjs_anon_sym_DOT, 3447, 1, mozjs_anon_sym_GT, 5, 2, mozjs_sym_html_comment,
      mozjs_sym_comment]"

definition mozjs_small_run_55926 :: "nat list" where
  "mozjs_small_run_55926 =
    [2, 5, 2, mozjs_sym_html_comment, mozjs_sym_comment, 1974, 2, mozjs_sym__automatic_semicolon,
      mozjs_anon_sym_SEMI]"

definition mozjs_small_run_55935 :: "nat list" where
  "mozjs_small_run_55935 =
    [3, 3533, 1, mozjs_anon_sym_LPAREN, 70, 1, mozjs_sym_parenthesized_expression, 5, 2,
      mozjs_sym_html_comment, mozjs_sym_comment]"

definition mozjs_small_run_55946 :: "nat list" where
  "mozjs_small_run_55946 =
    [3, 3473, 1, mozjs_anon_sym_LBRACE, 1055, 1, mozjs_sym_statement_block, 5, 2,
      mozjs_sym_html_comment, mozjs_sym_comment]"

definition mozjs_small_run_55957 :: "nat list" where
  "mozjs_small_run_55957 =
    [3, 2938, 1, mozjs_anon_sym_LPAREN, 1753, 1, mozjs_sym_formal_parameters, 5, 2,
      mozjs_sym_html_comment, mozjs_sym_comment]"

definition mozjs_small_run_55968 :: "nat list" where
  "mozjs_small_run_55968 =
    [3, 3535, 1, mozjs_anon_sym_LBRACE, 776, 1, mozjs_sym_statement_block, 5, 2,
      mozjs_sym_html_comment, mozjs_sym_comment]"

definition mozjs_small_run_55979 :: "nat list" where
  "mozjs_small_run_55979 =
    [3, 3535, 1, mozjs_anon_sym_LBRACE, 777, 1, mozjs_sym_statement_block, 5, 2,
      mozjs_sym_html_comment, mozjs_sym_comment]"

definition mozjs_small_run_55990 :: "nat list" where
  "mozjs_small_run_55990 =
    [3, 3010, 1, mozjs_anon_sym_LBRACE, 779, 1, mozjs_sym_class_body, 5, 2,
      mozjs_sym_html_comment, mozjs_sym_comment]"

definition mozjs_small_run_56001 :: "nat list" where
  "mozjs_small_run_56001 =
    [3, 3010, 1, mozjs_anon_sym_LBRACE, 96, 1, mozjs_sym_class_body, 5, 2,
      mozjs_sym_html_comment, mozjs_sym_comment]"

definition mozjs_small_run_56012 :: "nat list" where
  "mozjs_small_run_56012 =
    [3, 2414, 1, mozjs_anon_sym_LBRACE, 1055, 1, mozjs_sym_statement_block, 5, 2,
      mozjs_sym_html_comment, mozjs_sym_comment]"

definition mozjs_small_run_56023 :: "nat list" where
  "mozjs_small_run_56023 =
    [3, 2938, 1, mozjs_anon_sym_LPAREN, 1549, 1, mozjs_sym_formal_parameters, 5, 2,
      mozjs_sym_html_comment, mozjs_sym_comment]"

definition mozjs_small_run_56034 :: "nat list" where
  "mozjs_small_run_56034 =
    [3, 2414, 1, mozjs_anon_sym_LBRACE, 1044, 1, mozjs_sym_statement_block, 5, 2,
      mozjs_sym_html_comment, mozjs_sym_comment]"

definition mozjs_small_run_56045 :: "nat list" where
  "mozjs_small_run_56045 =
    [3, 3016, 1, mozjs_anon_sym_LBRACE, 602, 1, mozjs_sym_class_body, 5, 2,
      mozjs_sym_html_comment, mozjs_sym_comment]"

definition mozjs_small_run_56056 :: "nat list" where
  "mozjs_small_run_56056 =
    [3, 3537, 1, mozjs_anon_sym_LBRACE, 603, 1, mozjs_sym_statement_block, 5, 2,
      mozjs_sym_html_comment, mozjs_sym_comment]"

definition mozjs_small_run_56067 :: "nat list" where
  "mozjs_small_run_56067 =
    [3, 3561, 1, mozjs_sym_identifier, 3563, 1, mozjs_sym_private_property_identifier, 5, 2,
      mozjs_sym_html_comment, mozjs_sym_comment]"

definition mozjs_small_run_56078 :: "nat list" where
  "mozjs_small_run_56078 =
    [3, 3324, 1, mozjs_anon_sym_from, 1744, 1, mozjs_sym__from_clause, 5, 2,
      mozjs_sym_html_comment, mozjs_sym_comment]"

definition mozjs_small_run_56089 :: "nat list" where
  "mozjs_small_run_56089 =
    [3, 3121, 1, mozjs_sym_identifier, 3125, 1, mozjs_sym_private_property_identifier, 5, 2,
      mozjs_sym_html_comment, mozjs_sym_comment]"

definition mozjs_small_run_56100 :: "nat list" where
  "mozjs_small_run_56100 =
    [3, 3565, 1, mozjs_sym_identifier, 3567, 1, mozjs_anon_sym_STAR, 5, 2,
      mozjs_sym_html_comment, mozjs_sym_comment]"

definition mozjs_small_run_56111 :: "nat list" where
  "mozjs_small_run_56111 =
    [3, 3537, 1, mozjs_anon_sym_LBRACE, 605, 1, mozjs_sym_statement_block, 5, 2,
      mozjs_sym_html_comment, mozjs_sym_comment]"

definition mozjs_small_run_56122 :: "nat list" where
  "mozjs_small_run_56122 =
    [3, 3473, 1, mozjs_anon_sym_LBRACE, 1049, 1, mozjs_sym_statement_block, 5, 2,
      mozjs_sym_html_comment, mozjs_sym_comment]"

definition mozjs_small_run_56133 :: "nat list" where
  "mozjs_small_run_56133 =
    [3, 3535, 1, mozjs_anon_sym_LBRACE, 802, 1, mozjs_sym_statement_block, 5, 2,
      mozjs_sym_html_comment, mozjs_sym_comment]"

definition mozjs_small_run_56144 :: "nat list" where
  "mozjs_small_run_56144 =
    [2, 5, 2, mozjs_sym_html_comment, mozjs_sym_comment, 3569, 2, mozjs_anon_sym_of,
      mozjs_anon_sym_in]"

definition mozjs_small_run_56153 :: "nat list" where
  "mozjs_small_run_56153 =
    [2, 5, 2, mozjs_sym_html_comment, mozjs_sym_comment, 3571, 2, mozjs_anon_sym_of,
      mozjs_anon_sym_in]"

definition mozjs_small_run_56162 :: "nat list" where
  "mozjs_small_run_56162 =
    [3, 3473, 1, mozjs_anon_sym_LBRACE, 409, 1, mozjs_sym_statement_block, 5, 2,
      mozjs_sym_html_comment, mozjs_sym_comment]"

definition mozjs_small_run_56173 :: "nat list" where
  "mozjs_small_run_56173 =
    [3, 3535, 1, mozjs_anon_sym_LBRACE, 810, 1, mozjs_sym_statement_block, 5, 2,
      mozjs_sym_html_comment, mozjs_sym_comment]"

definition mozjs_small_run_56184 :: "nat list" where
  "mozjs_small_run_56184 =
    [3, 3473, 1, mozjs_anon_sym_LBRACE, 1067, 1, mozjs_sym_statement_block, 5, 2,
      mozjs_sym_html_comment, mozjs_sym_comment]"

definition mozjs_small_run_56195 :: "nat list" where
  "mozjs_small_run_56195 =
    [3, 3473, 1, mozjs_anon_sym_LBRACE, 1069, 1, mozjs_sym_statement_block, 5, 2,
      mozjs_sym_html_comment, mozjs_sym_comment]"

definition mozjs_small_run_56206 :: "nat list" where
  "mozjs_small_run_56206 =
    [3, 3010, 1, mozjs_anon_sym_LBRACE, 745, 1, mozjs_sym_class_body, 5, 2,
      mozjs_sym_html_comment, mozjs_sym_comment]"

definition mozjs_small_run_56217 :: "nat list" where
  "mozjs_small_run_56217 =
    [2, 5, 2, mozjs_sym_html_comment, mozjs_sym_comment, 3469, 2, mozjs_anon_sym_COMMA,
      mozjs_anon_sym_RBRACE]"

definition mozjs_small_run_56226 :: "nat list" where
  "mozjs_small_run_56226 =
    [3, 2938, 1, mozjs_anon_sym_LPAREN, 1670, 1, mozjs_sym_formal_parameters, 5, 2,
      mozjs_sym_html_comment, mozjs_sym_comment]"

definition mozjs_small_run_56237 :: "nat list" where
  "mozjs_small_run_56237 =
    [3, 3473, 1, mozjs_anon_sym_LBRACE, 1072, 1, mozjs_sym_statement_block, 5, 2,
      mozjs_sym_html_comment, mozjs_sym_comment]"

definition mozjs_small_run_56248 :: "nat list" where
  "mozjs_small_run_56248 =
    [3, 2938, 1, mozjs_anon_sym_LPAREN, 1552, 1, mozjs_sym_formal_parameters, 5, 2,
      mozjs_sym_html_comment, mozjs_sym_comment]"

definition mozjs_small_run_56259 :: "nat list" where
  "mozjs_small_run_56259 =
    [3, 2414, 1, mozjs_anon_sym_LBRACE, 1060, 1, mozjs_sym_statement_block, 5, 2,
      mozjs_sym_html_comment, mozjs_sym_comment]"

definition mozjs_small_run_56270 :: "nat list" where
  "mozjs_small_run_56270 =
    [2, 5, 2, mozjs_sym_html_comment, mozjs_sym_comment, 3573, 2, mozjs_anon_sym_LBRACE,
      mozjs_anon_sym_EQ_GT]"

definition mozjs_small_run_56279 :: "nat list" where
  "mozjs_small_run_56279 =
    [3, 2938, 1, mozjs_anon_sym_LPAREN, 1560, 1, mozjs_sym_formal_parameters, 5, 2,
      mozjs_sym_html_comment, mozjs_sym_comment]"

definition mozjs_small_run_56290 :: "nat list" where
  "mozjs_small_run_56290 =
    [3, 3535, 1, mozjs_anon_sym_LBRACE, 739, 1, mozjs_sym_statement_block, 5, 2,
      mozjs_sym_html_comment, mozjs_sym_comment]"

definition mozjs_small_run_56301 :: "nat list" where
  "mozjs_small_run_56301 =
    [3, 3575, 1, mozjs_anon_sym_LPAREN, 388, 1, mozjs_sym_parenthesized_expression, 5, 2,
      mozjs_sym_html_comment, mozjs_sym_comment]"

definition mozjs_small_run_56312 :: "nat list" where
  "mozjs_small_run_56312 =
    [3, 2414, 1, mozjs_anon_sym_LBRACE, 1061, 1, mozjs_sym_statement_block, 5, 2,
      mozjs_sym_html_comment, mozjs_sym_comment]"

definition mozjs_small_run_56323 :: "nat list" where
  "mozjs_small_run_56323 =
    [3, 2938, 1, mozjs_anon_sym_LPAREN, 1569, 1, mozjs_sym_formal_parameters, 5, 2,
      mozjs_sym_html_comment, mozjs_sym_comment]"

definition mozjs_small_run_56334 :: "nat list" where
  "mozjs_small_run_56334 =
    [3, 2414, 1, mozjs_anon_sym_LBRACE, 1062, 1, mozjs_sym_statement_block, 5, 2,
      mozjs_sym_html_comment, mozjs_sym_comment]"

definition mozjs_small_run_56345 :: "nat list" where
  "mozjs_small_run_56345 =
    [3, 2414, 1, mozjs_anon_sym_LBRACE, 1064, 1, mozjs_sym_statement_block, 5, 2,
      mozjs_sym_html_comment, mozjs_sym_comment]"

definition mozjs_small_run_56356 :: "nat list" where
  "mozjs_small_run_56356 =
    [2, 5, 2, mozjs_sym_html_comment, mozjs_sym_comment, 3577, 2, mozjs_anon_sym_LBRACE,
      mozjs_anon_sym_EQ_GT]"

definition mozjs_small_run_56365 :: "nat list" where
  "mozjs_small_run_56365 =
    [3, 3473, 1, mozjs_anon_sym_LBRACE, 413, 1, mozjs_sym_statement_block, 5, 2,
      mozjs_sym_html_comment, mozjs_sym_comment]"

definition mozjs_small_run_56376 :: "nat list" where
  "mozjs_small_run_56376 =
    [2, 5, 2, mozjs_sym_html_comment, mozjs_sym_comment, 1655, 2, mozjs_sym__automatic_semicolon,
      mozjs_anon_sym_SEMI]"

definition mozjs_small_run_56385 :: "nat list" where
  "mozjs_small_run_56385 =
    [3, 2414, 1, mozjs_anon_sym_LBRACE, 1042, 1, mozjs_sym_statement_block, 5, 2,
      mozjs_sym_html_comment, mozjs_sym_comment]"

definition mozjs_small_run_56396 :: "nat list" where
  "mozjs_small_run_56396 =
    [3, 2414, 1, mozjs_anon_sym_LBRACE, 1071, 1, mozjs_sym_statement_block, 5, 2,
      mozjs_sym_html_comment, mozjs_sym_comment]"

definition mozjs_small_run_56407 :: "nat list" where
  "mozjs_small_run_56407 =
    [3, 2414, 1, mozjs_anon_sym_LBRACE, 1073, 1, mozjs_sym_statement_block, 5, 2,
      mozjs_sym_html_comment, mozjs_sym_comment]"

definition mozjs_small_run_56418 :: "nat list" where
  "mozjs_small_run_56418 =
    [3, 3537, 1, mozjs_anon_sym_LBRACE, 611, 1, mozjs_sym_statement_block, 5, 2,
      mozjs_sym_html_comment, mozjs_sym_comment]"

definition mozjs_small_run_56429 :: "nat list" where
  "mozjs_small_run_56429 =
    [2, 5, 2, mozjs_sym_html_comment, mozjs_sym_comment, 3579, 2, mozjs_sym__automatic_semicolon,
      mozjs_anon_sym_SEMI]"

definition mozjs_small_run_56438 :: "nat list" where
  "mozjs_small_run_56438 =
    [2, 5, 2, mozjs_sym_html_comment, mozjs_sym_comment, 3581, 2, mozjs_sym__automatic_semicolon,
      mozjs_anon_sym_SEMI]"

definition mozjs_small_run_56447 :: "nat list" where
  "mozjs_small_run_56447 =
    [2, 5, 2, mozjs_sym_html_comment, mozjs_sym_comment, 3583, 2, mozjs_sym__automatic_semicolon,
      mozjs_anon_sym_SEMI]"

definition mozjs_small_run_56456 :: "nat list" where
  "mozjs_small_run_56456 =
    [2, 5, 2, mozjs_sym_html_comment, mozjs_sym_comment, 3585, 2, mozjs_anon_sym_of,
      mozjs_anon_sym_in]"

definition mozjs_small_run_56465 :: "nat list" where
  "mozjs_small_run_56465 =
    [3, 3535, 1, mozjs_anon_sym_LBRACE, 95, 1, mozjs_sym_statement_block, 5, 2,
      mozjs_sym_html_comment, mozjs_sym_comment]"

definition mozjs_small_run_56476 :: "nat list" where
  "mozjs_small_run_56476 =
    [3, 3097, 1, mozjs_anon_sym_of, 3099, 1, mozjs_anon_sym_in, 5, 2, mozjs_sym_html_comment,
      mozjs_sym_comment]"

definition mozjs_small_run_56487 :: "nat list" where
  "mozjs_small_run_56487 =
    [3, 3537, 1, mozjs_anon_sym_LBRACE, 612, 1, mozjs_sym_statement_block, 5, 2,
      mozjs_sym_html_comment, mozjs_sym_comment]"

definition mozjs_small_run_56498 :: "nat list" where
  "mozjs_small_run_56498 =
    [3, 2938, 1, mozjs_anon_sym_LPAREN, 1681, 1, mozjs_sym_formal_parameters, 5, 2,
      mozjs_sym_html_comment, mozjs_sym_comment]"

definition mozjs_small_run_56509 :: "nat list" where
  "mozjs_small_run_56509 =
    [3, 3473, 1, mozjs_anon_sym_LBRACE, 1074, 1, mozjs_sym_statement_block, 5, 2,
      mozjs_sym_html_comment, mozjs_sym_comment]"

definition mozjs_small_run_56520 :: "nat list" where
  "mozjs_small_run_56520 =
    [3, 3016, 1, mozjs_anon_sym_LBRACE, 617, 1, mozjs_sym_class_body, 5, 2,
      mozjs_sym_html_comment, mozjs_sym_comment]"

definition mozjs_small_run_56531 :: "nat list" where
  "mozjs_small_run_56531 =
    [3, 2760, 1, mozjs_anon_sym_COLON, 3385, 1, mozjs_anon_sym_GT, 5, 2, mozjs_sym_html_comment,
      mozjs_sym_comment]"

definition mozjs_small_run_56542 :: "nat list" where
  "mozjs_small_run_56542 =
    [3, 2938, 1, mozjs_anon_sym_LPAREN, 1576, 1, mozjs_sym_formal_parameters, 5, 2,
      mozjs_sym_html_comment, mozjs_sym_comment]"

definition mozjs_small_run_56553 :: "nat list" where
  "mozjs_small_run_56553 =
    [3, 3535, 1, mozjs_anon_sym_LBRACE, 762, 1, mozjs_sym_statement_block, 5, 2,
      mozjs_sym_html_comment, mozjs_sym_comment]"

definition mozjs_small_run_56564 :: "nat list" where
  "mozjs_small_run_56564 =
    [3, 2938, 1, mozjs_anon_sym_LPAREN, 1577, 1, mozjs_sym_formal_parameters, 5, 2,
      mozjs_sym_html_comment, mozjs_sym_comment]"

definition mozjs_small_run_56575 :: "nat list" where
  "mozjs_small_run_56575 =
    [3, 2938, 1, mozjs_anon_sym_LPAREN, 1578, 1, mozjs_sym_formal_parameters, 5, 2,
      mozjs_sym_html_comment, mozjs_sym_comment]"

definition mozjs_small_run_56586 :: "nat list" where
  "mozjs_small_run_56586 =
    [3, 3473, 1, mozjs_anon_sym_LBRACE, 1044, 1, mozjs_sym_statement_block, 5, 2,
      mozjs_sym_html_comment, mozjs_sym_comment]"

definition mozjs_small_run_56597 :: "nat list" where
  "mozjs_small_run_56597 =
    [3, 3473, 1, mozjs_anon_sym_LBRACE, 1070, 1, mozjs_sym_statement_block, 5, 2,
      mozjs_sym_html_comment, mozjs_sym_comment]"

definition mozjs_small_run_56608 :: "nat list" where
  "mozjs_small_run_56608 =
    [3, 2414, 1, mozjs_anon_sym_LBRACE, 1048, 1, mozjs_sym_statement_block, 5, 2,
      mozjs_sym_html_comment, mozjs_sym_comment]"

definition mozjs_small_run_56619 :: "nat list" where
  "mozjs_small_run_56619 =
    [3, 2414, 1, mozjs_anon_sym_LBRACE, 1051, 1, mozjs_sym_statement_block, 5, 2,
      mozjs_sym_html_comment, mozjs_sym_comment]"

definition mozjs_small_run_56630 :: "nat list" where
  "mozjs_small_run_56630 =
    [2, 5, 2, mozjs_sym_html_comment, mozjs_sym_comment, 1760, 2, mozjs_sym__automatic_semicolon,
      mozjs_anon_sym_SEMI]"

definition mozjs_small_run_56639 :: "nat list" where
  "mozjs_small_run_56639 =
    [2, 5, 2, mozjs_sym_html_comment, mozjs_sym_comment, 1764, 2, mozjs_sym__automatic_semicolon,
      mozjs_anon_sym_SEMI]"

definition mozjs_small_run_56648 :: "nat list" where
  "mozjs_small_run_56648 =
    [2, 5, 2, mozjs_sym_html_comment, mozjs_sym_comment, 3497, 2, mozjs_anon_sym_COMMA,
      mozjs_anon_sym_RBRACK]"

definition mozjs_small_run_56657 :: "nat list" where
  "mozjs_small_run_56657 =
    [3, 2414, 1, mozjs_anon_sym_LBRACE, 1058, 1, mozjs_sym_statement_block, 5, 2,
      mozjs_sym_html_comment, mozjs_sym_comment]"

definition mozjs_small_run_56668 :: "nat list" where
  "mozjs_small_run_56668 =
    [3, 2414, 1, mozjs_anon_sym_LBRACE, 1054, 1, mozjs_sym_statement_block, 5, 2,
      mozjs_sym_html_comment, mozjs_sym_comment]"

definition mozjs_small_run_56679 :: "nat list" where
  "mozjs_small_run_56679 =
    [3, 2414, 1, mozjs_anon_sym_LBRACE, 1046, 1, mozjs_sym_statement_block, 5, 2,
      mozjs_sym_html_comment, mozjs_sym_comment]"

definition mozjs_small_run_56690 :: "nat list" where
  "mozjs_small_run_56690 =
    [3, 2414, 1, mozjs_anon_sym_LBRACE, 1056, 1, mozjs_sym_statement_block, 5, 2,
      mozjs_sym_html_comment, mozjs_sym_comment]"

definition mozjs_small_run_56701 :: "nat list" where
  "mozjs_small_run_56701 =
    [3, 2414, 1, mozjs_anon_sym_LBRACE, 1047, 1, mozjs_sym_statement_block, 5, 2,
      mozjs_sym_html_comment, mozjs_sym_comment]"

definition mozjs_small_run_56712 :: "nat list" where
  "mozjs_small_run_56712 =
    [3, 2938, 1, mozjs_anon_sym_LPAREN, 1623, 1, mozjs_sym_formal_parameters, 5, 2,
      mozjs_sym_html_comment, mozjs_sym_comment]"

definition mozjs_small_run_56723 :: "nat list" where
  "mozjs_small_run_56723 =
    [3, 3549, 1, mozjs_anon_sym_LBRACE, 408, 1, mozjs_sym_statement_block, 5, 2,
      mozjs_sym_html_comment, mozjs_sym_comment]"

definition mozjs_small_run_56734 :: "nat list" where
  "mozjs_small_run_56734 =
    [3, 2414, 1, mozjs_anon_sym_LBRACE, 1053, 1, mozjs_sym_statement_block, 5, 2,
      mozjs_sym_html_comment, mozjs_sym_comment]"

definition mozjs_small_run_56745 :: "nat list" where
  "mozjs_small_run_56745 =
    [3, 2414, 1, mozjs_anon_sym_LBRACE, 1043, 1, mozjs_sym_statement_block, 5, 2,
      mozjs_sym_html_comment, mozjs_sym_comment]"

definition mozjs_small_run_56756 :: "nat list" where
  "mozjs_small_run_56756 =
    [3, 3473, 1, mozjs_anon_sym_LBRACE, 1075, 1, mozjs_sym_statement_block, 5, 2,
      mozjs_sym_html_comment, mozjs_sym_comment]"

definition mozjs_small_run_56767 :: "nat list" where
  "mozjs_small_run_56767 =
    [3, 2414, 1, mozjs_anon_sym_LBRACE, 1059, 1, mozjs_sym_statement_block, 5, 2,
      mozjs_sym_html_comment, mozjs_sym_comment]"

definition mozjs_small_run_56778 :: "nat list" where
  "mozjs_small_run_56778 =
    [3, 2414, 1, mozjs_anon_sym_LBRACE, 1065, 1, mozjs_sym_statement_block, 5, 2,
      mozjs_sym_html_comment, mozjs_sym_comment]"

definition mozjs_small_run_56789 :: "nat list" where
  "mozjs_small_run_56789 =
    [3, 2414, 1, mozjs_anon_sym_LBRACE, 1068, 1, mozjs_sym_statement_block, 5, 2,
      mozjs_sym_html_comment, mozjs_sym_comment]"

definition mozjs_small_run_56800 :: "nat list" where
  "mozjs_small_run_56800 =
    [3, 3473, 1, mozjs_anon_sym_LBRACE, 1048, 1, mozjs_sym_statement_block, 5, 2,
      mozjs_sym_html_comment, mozjs_sym_comment]"

definition mozjs_small_run_56811 :: "nat list" where
  "mozjs_small_run_56811 =
    [3, 3537, 1, mozjs_anon_sym_LBRACE, 618, 1, mozjs_sym_statement_block, 5, 2,
      mozjs_sym_html_comment, mozjs_sym_comment]"

definition mozjs_small_run_56822 :: "nat list" where
  "mozjs_small_run_56822 =
    [3, 3473, 1, mozjs_anon_sym_LBRACE, 1051, 1, mozjs_sym_statement_block, 5, 2,
      mozjs_sym_html_comment, mozjs_sym_comment]"

definition mozjs_small_run_56833 :: "nat list" where
  "mozjs_small_run_56833 =
    [3, 3473, 1, mozjs_anon_sym_LBRACE, 1058, 1, mozjs_sym_statement_block, 5, 2,
      mozjs_sym_html_comment, mozjs_sym_comment]"

definition mozjs_small_run_56844 :: "nat list" where
  "mozjs_small_run_56844 =
    [3, 3473, 1, mozjs_anon_sym_LBRACE, 1054, 1, mozjs_sym_statement_block, 5, 2,
      mozjs_sym_html_comment, mozjs_sym_comment]"

definition mozjs_small_run_56855 :: "nat list" where
  "mozjs_small_run_56855 =
    [3, 3473, 1, mozjs_anon_sym_LBRACE, 1046, 1, mozjs_sym_statement_block, 5, 2,
      mozjs_sym_html_comment, mozjs_sym_comment]"

definition mozjs_small_run_56866 :: "nat list" where
  "mozjs_small_run_56866 =
    [3, 2760, 1, mozjs_anon_sym_COLON, 3387, 1, mozjs_anon_sym_GT, 5, 2, mozjs_sym_html_comment,
      mozjs_sym_comment]"

definition mozjs_small_run_56877 :: "nat list" where
  "mozjs_small_run_56877 =
    [3, 2938, 1, mozjs_anon_sym_LPAREN, 1643, 1, mozjs_sym_formal_parameters, 5, 2,
      mozjs_sym_html_comment, mozjs_sym_comment]"

definition mozjs_small_run_56888 :: "nat list" where
  "mozjs_small_run_56888 =
    [3, 2938, 1, mozjs_anon_sym_LPAREN, 1644, 1, mozjs_sym_formal_parameters, 5, 2,
      mozjs_sym_html_comment, mozjs_sym_comment]"

definition mozjs_small_run_56899 :: "nat list" where
  "mozjs_small_run_56899 =
    [3, 2938, 1, mozjs_anon_sym_LPAREN, 1648, 1, mozjs_sym_formal_parameters, 5, 2,
      mozjs_sym_html_comment, mozjs_sym_comment]"

definition mozjs_small_run_56910 :: "nat list" where
  "mozjs_small_run_56910 =
    [3, 3473, 1, mozjs_anon_sym_LBRACE, 1056, 1, mozjs_sym_statement_block, 5, 2,
      mozjs_sym_html_comment, mozjs_sym_comment]"

definition mozjs_small_run_56921 :: "nat list" where
  "mozjs_small_run_56921 =
    [3, 3473, 1, mozjs_anon_sym_LBRACE, 368, 1, mozjs_sym_statement_block, 5, 2,
      mozjs_sym_html_comment, mozjs_sym_comment]"

definition mozjs_small_run_56932 :: "nat list" where
  "mozjs_small_run_56932 =
    [3, 3016, 1, mozjs_anon_sym_LBRACE, 616, 1, mozjs_sym_class_body, 5, 2,
      mozjs_sym_html_comment, mozjs_sym_comment]"

definition mozjs_small_run_56943 :: "nat list" where
  "mozjs_small_run_56943 =
    [3, 2766, 1, mozjs_anon_sym_DOT, 3387, 1, mozjs_anon_sym_GT, 5, 2, mozjs_sym_html_comment,
      mozjs_sym_comment]"

definition mozjs_small_run_56954 :: "nat list" where
  "mozjs_small_run_56954 =
    [3, 3473, 1, mozjs_anon_sym_LBRACE, 1047, 1, mozjs_sym_statement_block, 5, 2,
      mozjs_sym_html_comment, mozjs_sym_comment]"

definition mozjs_small_run_56965 :: "nat list" where
  "mozjs_small_run_56965 =
    [3, 2414, 1, mozjs_anon_sym_LBRACE, 1067, 1, mozjs_sym_statement_block, 5, 2,
      mozjs_sym_html_comment, mozjs_sym_comment]"

definition mozjs_small_run_56976 :: "nat list" where
  "mozjs_small_run_56976 =
    [3, 3473, 1, mozjs_anon_sym_LBRACE, 1053, 1, mozjs_sym_statement_block, 5, 2,
      mozjs_sym_html_comment, mozjs_sym_comment]"

definition mozjs_small_run_56987 :: "nat list" where
  "mozjs_small_run_56987 =
    [3, 2414, 1, mozjs_anon_sym_LBRACE, 1069, 1, mozjs_sym_statement_block, 5, 2,
      mozjs_sym_html_comment, mozjs_sym_comment]"

definition mozjs_small_run_56998 :: "nat list" where
  "mozjs_small_run_56998 =
    [2, 5, 2, mozjs_sym_html_comment, mozjs_sym_comment, 1966, 2, mozjs_sym__automatic_semicolon,
      mozjs_anon_sym_SEMI]"

definition mozjs_small_run_57007 :: "nat list" where
  "mozjs_small_run_57007 =
    [3, 3587, 1, mozjs_sym_identifier, 3589, 1, mozjs_anon_sym_STAR, 5, 2,
      mozjs_sym_html_comment, mozjs_sym_comment]"

definition mozjs_small_run_57018 :: "nat list" where
  "mozjs_small_run_57018 =
    [3, 3535, 1, mozjs_anon_sym_LBRACE, 787, 1, mozjs_sym_statement_block, 5, 2,
      mozjs_sym_html_comment, mozjs_sym_comment]"

definition mozjs_small_run_57029 :: "nat list" where
  "mozjs_small_run_57029 =
    [3, 2414, 1, mozjs_anon_sym_LBRACE, 1072, 1, mozjs_sym_statement_block, 5, 2,
      mozjs_sym_html_comment, mozjs_sym_comment]"

definition mozjs_small_run_57040 :: "nat list" where
  "mozjs_small_run_57040 =
    [3, 2414, 1, mozjs_anon_sym_LBRACE, 1074, 1, mozjs_sym_statement_block, 5, 2,
      mozjs_sym_html_comment, mozjs_sym_comment]"

definition mozjs_small_run_57051 :: "nat list" where
  "mozjs_small_run_57051 =
    [3, 3535, 1, mozjs_anon_sym_LBRACE, 99, 1, mozjs_sym_statement_block, 5, 2,
      mozjs_sym_html_comment, mozjs_sym_comment]"

definition mozjs_small_run_57062 :: "nat list" where
  "mozjs_small_run_57062 =
    [3, 2766, 1, mozjs_anon_sym_DOT, 3385, 1, mozjs_anon_sym_GT, 5, 2, mozjs_sym_html_comment,
      mozjs_sym_comment]"

definition mozjs_small_run_57073 :: "nat list" where
  "mozjs_small_run_57073 =
    [3, 2414, 1, mozjs_anon_sym_LBRACE, 1070, 1, mozjs_sym_statement_block, 5, 2,
      mozjs_sym_html_comment, mozjs_sym_comment]"

definition mozjs_small_run_57084 :: "nat list" where
  "mozjs_small_run_57084 =
    [3, 2414, 1, mozjs_anon_sym_LBRACE, 1075, 1, mozjs_sym_statement_block, 5, 2,
      mozjs_sym_html_comment, mozjs_sym_comment]"

definition mozjs_small_run_57095 :: "nat list" where
  "mozjs_small_run_57095 =
    [3, 3473, 1, mozjs_anon_sym_LBRACE, 1043, 1, mozjs_sym_statement_block, 5, 2,
      mozjs_sym_html_comment, mozjs_sym_comment]"

definition mozjs_small_run_57106 :: "nat list" where
  "mozjs_small_run_57106 =
    [3, 2938, 1, mozjs_anon_sym_LPAREN, 1674, 1, mozjs_sym_formal_parameters, 5, 2,
      mozjs_sym_html_comment, mozjs_sym_comment]"

definition mozjs_small_run_57117 :: "nat list" where
  "mozjs_small_run_57117 =
    [3, 2938, 1, mozjs_anon_sym_LPAREN, 1682, 1, mozjs_sym_formal_parameters, 5, 2,
      mozjs_sym_html_comment, mozjs_sym_comment]"

definition mozjs_small_run_57128 :: "nat list" where
  "mozjs_small_run_57128 =
    [3, 3591, 1, mozjs_sym_identifier, 3593, 1, mozjs_sym_jsx_identifier, 5, 2,
      mozjs_sym_html_comment, mozjs_sym_comment]"

definition mozjs_small_run_57139 :: "nat list" where
  "mozjs_small_run_57139 =
    [3, 2938, 1, mozjs_anon_sym_LPAREN, 1697, 1, mozjs_sym_formal_parameters, 5, 2,
      mozjs_sym_html_comment, mozjs_sym_comment]"

definition mozjs_small_run_57150 :: "nat list" where
  "mozjs_small_run_57150 =
    [3, 3473, 1, mozjs_anon_sym_LBRACE, 1059, 1, mozjs_sym_statement_block, 5, 2,
      mozjs_sym_html_comment, mozjs_sym_comment]"

definition mozjs_small_run_57161 :: "nat list" where
  "mozjs_small_run_57161 =
    [2, 5, 2, mozjs_sym_html_comment, mozjs_sym_comment, 3485, 2, mozjs_anon_sym_COMMA,
      mozjs_anon_sym_RBRACE]"

definition mozjs_small_run_57170 :: "nat list" where
  "mozjs_small_run_57170 =
    [3, 3545, 1, mozjs_anon_sym_LPAREN, 64, 1, mozjs_sym__for_header, 5, 2,
      mozjs_sym_html_comment, mozjs_sym_comment]"

definition mozjs_small_run_57181 :: "nat list" where
  "mozjs_small_run_57181 =
    [3, 2938, 1, mozjs_anon_sym_LPAREN, 1593, 1, mozjs_sym_formal_parameters, 5, 2,
      mozjs_sym_html_comment, mozjs_sym_comment]"

definition mozjs_small_run_57192 :: "nat list" where
  "mozjs_small_run_57192 =
    [2, 5, 2, mozjs_sym_html_comment, mozjs_sym_comment, 3595, 2, mozjs_anon_sym_LBRACE,
      mozjs_anon_sym_EQ_GT]"

definition mozjs_small_run_57201 :: "nat list" where
  "mozjs_small_run_57201 =
    [2, 5, 2, mozjs_sym_html_comment, mozjs_sym_comment, 3518, 2, mozjs_anon_sym_COMMA,
      mozjs_anon_sym_RPAREN]"

definition mozjs_small_run_57210 :: "nat list" where
  "mozjs_small_run_57210 =
    [3, 3597, 1, mozjs_anon_sym_SEMI, 3599, 1, mozjs_sym__automatic_semicolon, 5, 2,
      mozjs_sym_html_comment, mozjs_sym_comment]"

definition mozjs_small_run_57221 :: "nat list" where
  "mozjs_small_run_57221 =
    [2, 5, 2, mozjs_sym_html_comment, mozjs_sym_comment, 3601, 2, mozjs_sym__automatic_semicolon,
      mozjs_anon_sym_SEMI]"

definition mozjs_small_run_57230 :: "nat list" where
  "mozjs_small_run_57230 =
    [3, 3603, 1, mozjs_anon_sym_SEMI, 3605, 1, mozjs_sym__automatic_semicolon, 5, 2,
      mozjs_sym_html_comment, mozjs_sym_comment]"

definition mozjs_small_run_57241 :: "nat list" where
  "mozjs_small_run_57241 =
    [3, 3473, 1, mozjs_anon_sym_LBRACE, 1065, 1, mozjs_sym_statement_block, 5, 2,
      mozjs_sym_html_comment, mozjs_sym_comment]"

definition mozjs_small_run_57252 :: "nat list" where
  "mozjs_small_run_57252 =
    [2, 5, 2, mozjs_sym_html_comment, mozjs_sym_comment, 1952, 2, mozjs_sym__automatic_semicolon,
      mozjs_anon_sym_SEMI]"

definition mozjs_small_run_57261 :: "nat list" where
  "mozjs_small_run_57261 =
    [3, 3607, 1, mozjs_anon_sym_SEMI, 3609, 1, mozjs_sym__automatic_semicolon, 5, 2,
      mozjs_sym_html_comment, mozjs_sym_comment]"

definition mozjs_small_run_57272 :: "nat list" where
  "mozjs_small_run_57272 =
    [3, 2938, 1, mozjs_anon_sym_LPAREN, 1653, 1, mozjs_sym_formal_parameters, 5, 2,
      mozjs_sym_html_comment, mozjs_sym_comment]"

definition mozjs_small_run_57283 :: "nat list" where
  "mozjs_small_run_57283 =
    [2, 5, 2, mozjs_sym_html_comment, mozjs_sym_comment, 3611, 2, mozjs_sym__automatic_semicolon,
      mozjs_anon_sym_SEMI]"

definition mozjs_small_run_57292 :: "nat list" where
  "mozjs_small_run_57292 =
    [3, 3473, 1, mozjs_anon_sym_LBRACE, 1068, 1, mozjs_sym_statement_block, 5, 2,
      mozjs_sym_html_comment, mozjs_sym_comment]"

definition mozjs_small_run_57303 :: "nat list" where
  "mozjs_small_run_57303 =
    [3, 3613, 1, mozjs_anon_sym_SEMI, 3615, 1, mozjs_sym__automatic_semicolon, 5, 2,
      mozjs_sym_html_comment, mozjs_sym_comment]"

definition mozjs_small_run_57314 :: "nat list" where
  "mozjs_small_run_57314 =
    [2, 5, 2, mozjs_sym_html_comment, mozjs_sym_comment, 3480, 2, mozjs_anon_sym_COMMA,
      mozjs_anon_sym_RBRACE]"

definition mozjs_small_run_57323 :: "nat list" where
  "mozjs_small_run_57323 =
    [3, 3010, 1, mozjs_anon_sym_LBRACE, 778, 1, mozjs_sym_class_body, 5, 2,
      mozjs_sym_html_comment, mozjs_sym_comment]"

definition mozjs_small_run_57334 :: "nat list" where
  "mozjs_small_run_57334 =
    [3, 3617, 1, mozjs_anon_sym_LBRACE, 434, 1, mozjs_sym_switch_body, 5, 2,
      mozjs_sym_html_comment, mozjs_sym_comment]"

definition mozjs_small_run_57345 :: "nat list" where
  "mozjs_small_run_57345 =
    [2, 5, 2, mozjs_sym_html_comment, mozjs_sym_comment, 1634, 2, mozjs_sym__automatic_semicolon,
      mozjs_anon_sym_SEMI]"

definition mozjs_small_run_57354 :: "nat list" where
  "mozjs_small_run_57354 =
    [3, 3535, 1, mozjs_anon_sym_LBRACE, 744, 1, mozjs_sym_statement_block, 5, 2,
      mozjs_sym_html_comment, mozjs_sym_comment]"

definition mozjs_small_run_57365 :: "nat list" where
  "mozjs_small_run_57365 =
    [3, 3010, 1, mozjs_anon_sym_LBRACE, 737, 1, mozjs_sym_class_body, 5, 2,
      mozjs_sym_html_comment, mozjs_sym_comment]"

definition mozjs_small_run_57376 :: "nat list" where
  "mozjs_small_run_57376 =
    [3, 3619, 1, mozjs_anon_sym_LBRACE, 1740, 1, mozjs_sym_object, 5, 2, mozjs_sym_html_comment,
      mozjs_sym_comment]"

definition mozjs_small_run_57387 :: "nat list" where
  "mozjs_small_run_57387 =
    [2, 5, 2, mozjs_sym_html_comment, mozjs_sym_comment, 3621, 2, mozjs_anon_sym_of,
      mozjs_anon_sym_in]"

definition mozjs_small_run_57396 :: "nat list" where
  "mozjs_small_run_57396 =
    [2, 2124, 1, mozjs_anon_sym_RPAREN, 5, 2, mozjs_sym_html_comment, mozjs_sym_comment]"

definition mozjs_small_run_57404 :: "nat list" where
  "mozjs_small_run_57404 =
    [2, 3623, 1, mozjs_anon_sym_target, 5, 2, mozjs_sym_html_comment, mozjs_sym_comment]"

definition mozjs_small_run_57412 :: "nat list" where
  "mozjs_small_run_57412 =
    [2, 3625, 1, mozjs_anon_sym_as, 5, 2, mozjs_sym_html_comment, mozjs_sym_comment]"

definition mozjs_small_run_57420 :: "nat list" where
  "mozjs_small_run_57420 =
    [3, 3, 1, mozjs_sym_comment, 5, 1, mozjs_sym_html_comment, 3627, 1, mozjs_sym_regex_pattern]"

definition mozjs_small_run_57430 :: "nat list" where
  "mozjs_small_run_57430 =
    [2, 2188, 1, mozjs_anon_sym_in, 5, 2, mozjs_sym_html_comment, mozjs_sym_comment]"

definition mozjs_small_run_57438 :: "nat list" where
  "mozjs_small_run_57438 =
    [2, 2050, 1, mozjs_anon_sym_RBRACK, 5, 2, mozjs_sym_html_comment, mozjs_sym_comment]"

definition mozjs_small_run_57446 :: "nat list" where
  "mozjs_small_run_57446 =
    [2, 3629, 1, mozjs_anon_sym_EQ, 5, 2, mozjs_sym_html_comment, mozjs_sym_comment]"

definition mozjs_small_run_57454 :: "nat list" where
  "mozjs_small_run_57454 =
    [2, 1805, 1, mozjs_anon_sym_in, 5, 2, mozjs_sym_html_comment, mozjs_sym_comment]"

definition mozjs_small_run_57462 :: "nat list" where
  "mozjs_small_run_57462 =
    [2, 3631, 1, mozjs_anon_sym_target, 5, 2, mozjs_sym_html_comment, mozjs_sym_comment]"

definition mozjs_small_run_57470 :: "nat list" where
  "mozjs_small_run_57470 =
    [2, 3134, 1, mozjs_anon_sym_EQ, 5, 2, mozjs_sym_html_comment, mozjs_sym_comment]"

definition mozjs_small_run_57478 :: "nat list" where
  "mozjs_small_run_57478 =
    [2, 2120, 1, mozjs_anon_sym_RPAREN, 5, 2, mozjs_sym_html_comment, mozjs_sym_comment]"

definition mozjs_small_run_57486 :: "nat list" where
  "mozjs_small_run_57486 =
    [2, 3529, 1, mozjs_anon_sym_from, 5, 2, mozjs_sym_html_comment, mozjs_sym_comment]"

definition mozjs_small_run_57494 :: "nat list" where
  "mozjs_small_run_57494 =
    [2, 3399, 1, mozjs_anon_sym_GT, 5, 2, mozjs_sym_html_comment, mozjs_sym_comment]"

definition mozjs_small_run_57502 :: "nat list" where
  "mozjs_small_run_57502 =
    [2, 2030, 1, mozjs_anon_sym_RBRACK, 5, 2, mozjs_sym_html_comment, mozjs_sym_comment]"

definition mozjs_small_run_57510 :: "nat list" where
  "mozjs_small_run_57510 =
    [2, 3633, 1, mozjs_anon_sym_EQ_GT, 5, 2, mozjs_sym_html_comment, mozjs_sym_comment]"

definition mozjs_small_run_57518 :: "nat list" where
  "mozjs_small_run_57518 =
    [2, 3635, 1, mozjs_anon_sym_from, 5, 2, mozjs_sym_html_comment, mozjs_sym_comment]"

definition mozjs_small_run_57526 :: "nat list" where
  "mozjs_small_run_57526 =
    [3, 3, 1, mozjs_sym_comment, 5, 1, mozjs_sym_html_comment, 3637, 1, mozjs_sym_regex_pattern]"

definition mozjs_small_run_57536 :: "nat list" where
  "mozjs_small_run_57536 =
    [2, 3639, 1, mozjs_anon_sym_using, 5, 2, mozjs_sym_html_comment, mozjs_sym_comment]"

definition mozjs_small_run_57544 :: "nat list" where
  "mozjs_small_run_57544 =
    [2, 2634, 1, mozjs_anon_sym_EQ_GT, 5, 2, mozjs_sym_html_comment, mozjs_sym_comment]"

definition mozjs_small_run_57552 :: "nat list" where
  "mozjs_small_run_57552 =
    [2, 3641, 1, mozjs_sym_identifier, 5, 2, mozjs_sym_html_comment, mozjs_sym_comment]"

definition mozjs_small_run_57560 :: "nat list" where
  "mozjs_small_run_57560 =
    [2, 3643, 1, mozjs_anon_sym_EQ_GT, 5, 2, mozjs_sym_html_comment, mozjs_sym_comment]"

definition mozjs_small_run_57568 :: "nat list" where
  "mozjs_small_run_57568 =
    [2, 3645, 1, mozjs_anon_sym_from, 5, 2, mozjs_sym_html_comment, mozjs_sym_comment]"

definition mozjs_small_run_57576 :: "nat list" where
  "mozjs_small_run_57576 =
    [2, 2404, 1, mozjs_anon_sym_LPAREN, 5, 2, mozjs_sym_html_comment, mozjs_sym_comment]"

definition mozjs_small_run_57584 :: "nat list" where
  "mozjs_small_run_57584 =
    [2, 3647, 1, mozjs_anon_sym_EQ_GT, 5, 2, mozjs_sym_html_comment, mozjs_sym_comment]"

definition mozjs_small_run_57592 :: "nat list" where
  "mozjs_small_run_57592 =
    [2, 3649, 1, mozjs_anon_sym_COLON, 5, 2, mozjs_sym_html_comment, mozjs_sym_comment]"

definition mozjs_small_run_57600 :: "nat list" where
  "mozjs_small_run_57600 =
    [2, 3651, 1, mozjs_sym_identifier, 5, 2, mozjs_sym_html_comment, mozjs_sym_comment]"

definition mozjs_small_run_57608 :: "nat list" where
  "mozjs_small_run_57608 =
    [2, 2026, 1, mozjs_anon_sym_RBRACE, 5, 2, mozjs_sym_html_comment, mozjs_sym_comment]"

definition mozjs_small_run_57616 :: "nat list" where
  "mozjs_small_run_57616 =
    [2, 2122, 1, mozjs_anon_sym_RPAREN, 5, 2, mozjs_sym_html_comment, mozjs_sym_comment]"

definition mozjs_small_run_57624 :: "nat list" where
  "mozjs_small_run_57624 =
    [2, 2108, 1, mozjs_anon_sym_RPAREN, 5, 2, mozjs_sym_html_comment, mozjs_sym_comment]"

definition mozjs_small_run_57632 :: "nat list" where
  "mozjs_small_run_57632 =
    [2, 2162, 1, mozjs_anon_sym_in, 5, 2, mozjs_sym_html_comment, mozjs_sym_comment]"

definition mozjs_small_run_57640 :: "nat list" where
  "mozjs_small_run_57640 =
    [2, 2044, 1, mozjs_anon_sym_RPAREN, 5, 2, mozjs_sym_html_comment, mozjs_sym_comment]"

definition mozjs_small_run_57648 :: "nat list" where
  "mozjs_small_run_57648 =
    [2, 3653, 1, mozjs_anon_sym_EQ_GT, 5, 2, mozjs_sym_html_comment, mozjs_sym_comment]"

definition mozjs_small_run_57656 :: "nat list" where
  "mozjs_small_run_57656 =
    [2, 3655, 1, mozjs_anon_sym_EQ_GT, 5, 2, mozjs_sym_html_comment, mozjs_sym_comment]"

definition mozjs_small_run_57664 :: "nat list" where
  "mozjs_small_run_57664 =
    [2, 3657, 1, mozjs_anon_sym_EQ_GT, 5, 2, mozjs_sym_html_comment, mozjs_sym_comment]"

definition mozjs_small_run_57672 :: "nat list" where
  "mozjs_small_run_57672 =
    [2, 3659, 1, mozjs_anon_sym_EQ_GT, 5, 2, mozjs_sym_html_comment, mozjs_sym_comment]"

definition mozjs_small_run_57680 :: "nat list" where
  "mozjs_small_run_57680 =
    [2, 3661, 1, mozjs_sym_identifier, 5, 2, mozjs_sym_html_comment, mozjs_sym_comment]"

definition mozjs_small_run_57688 :: "nat list" where
  "mozjs_small_run_57688 =
    [2, 3663, 1, mozjs_anon_sym_EQ_GT, 5, 2, mozjs_sym_html_comment, mozjs_sym_comment]"

definition mozjs_small_run_57696 :: "nat list" where
  "mozjs_small_run_57696 =
    [3, 3, 1, mozjs_sym_comment, 5, 1, mozjs_sym_html_comment, 3665, 1, mozjs_sym_regex_pattern]"

definition mozjs_small_run_57706 :: "nat list" where
  "mozjs_small_run_57706 =
    [2, 2054, 1, mozjs_anon_sym_RBRACK, 5, 2, mozjs_sym_html_comment, mozjs_sym_comment]"

definition mozjs_small_run_57714 :: "nat list" where
  "mozjs_small_run_57714 =
    [2, 2018, 1, mozjs_anon_sym_SEMI, 5, 2, mozjs_sym_html_comment, mozjs_sym_comment]"

definition mozjs_small_run_57722 :: "nat list" where
  "mozjs_small_run_57722 =
    [2, 2014, 1, mozjs_anon_sym_RPAREN, 5, 2, mozjs_sym_html_comment, mozjs_sym_comment]"

definition mozjs_small_run_57730 :: "nat list" where
  "mozjs_small_run_57730 =
    [2, 2020, 1, mozjs_anon_sym_RPAREN, 5, 2, mozjs_sym_html_comment, mozjs_sym_comment]"

definition mozjs_small_run_57738 :: "nat list" where
  "mozjs_small_run_57738 =
    [2, 3667, 1, mozjs_anon_sym_EQ_GT, 5, 2, mozjs_sym_html_comment, mozjs_sym_comment]"

definition mozjs_small_run_57746 :: "nat list" where
  "mozjs_small_run_57746 =
    [2, 2110, 1, mozjs_anon_sym_RPAREN, 5, 2, mozjs_sym_html_comment, mozjs_sym_comment]"

definition mozjs_small_run_57754 :: "nat list" where
  "mozjs_small_run_57754 =
    [3, 3, 1, mozjs_sym_comment, 5, 1, mozjs_sym_html_comment, 3669, 1, mozjs_anon_sym_SLASH2]"

definition mozjs_small_run_57764 :: "nat list" where
  "mozjs_small_run_57764 =
    [2, 3671, 1, mozjs_anon_sym_from, 5, 2, mozjs_sym_html_comment, mozjs_sym_comment]"

definition mozjs_small_run_57772 :: "nat list" where
  "mozjs_small_run_57772 =
    [2, 3673, 1, mozjs_sym_identifier, 5, 2, mozjs_sym_html_comment, mozjs_sym_comment]"

definition mozjs_small_run_57780 :: "nat list" where
  "mozjs_small_run_57780 =
    [2, 2052, 1, mozjs_anon_sym_RBRACE, 5, 2, mozjs_sym_html_comment, mozjs_sym_comment]"

definition mozjs_small_run_57788 :: "nat list" where
  "mozjs_small_run_57788 =
    [2, 2106, 1, mozjs_anon_sym_RBRACK, 5, 2, mozjs_sym_html_comment, mozjs_sym_comment]"

definition mozjs_small_run_57796 :: "nat list" where
  "mozjs_small_run_57796 =
    [2, 2022, 1, mozjs_anon_sym_RPAREN, 5, 2, mozjs_sym_html_comment, mozjs_sym_comment]"

definition mozjs_small_run_57804 :: "nat list" where
  "mozjs_small_run_57804 =
    [2, 1875, 1, mozjs_anon_sym_in, 5, 2, mozjs_sym_html_comment, mozjs_sym_comment]"

definition mozjs_small_run_57812 :: "nat list" where
  "mozjs_small_run_57812 =
    [2, 3675, 1, mozjs_anon_sym_EQ, 5, 2, mozjs_sym_html_comment, mozjs_sym_comment]"

definition mozjs_small_run_57820 :: "nat list" where
  "mozjs_small_run_57820 =
    [2, 2010, 1, mozjs_anon_sym_RPAREN, 5, 2, mozjs_sym_html_comment, mozjs_sym_comment]"

definition mozjs_small_run_57828 :: "nat list" where
  "mozjs_small_run_57828 =
    [2, 3539, 1, mozjs_anon_sym_EQ_GT, 5, 2, mozjs_sym_html_comment, mozjs_sym_comment]"

definition mozjs_small_run_57836 :: "nat list" where
  "mozjs_small_run_57836 =
    [2, 3677, 1, mozjs_anon_sym_EQ, 5, 2, mozjs_sym_html_comment, mozjs_sym_comment]"

definition mozjs_small_run_57844 :: "nat list" where
  "mozjs_small_run_57844 =
    [2, 3679, 1, mozjs_anon_sym_EQ_GT, 5, 2, mozjs_sym_html_comment, mozjs_sym_comment]"

definition mozjs_small_run_57852 :: "nat list" where
  "mozjs_small_run_57852 =
    [2, 3681, 1, mozjs_anon_sym_EQ_GT, 5, 2, mozjs_sym_html_comment, mozjs_sym_comment]"

definition mozjs_small_run_57860 :: "nat list" where
  "mozjs_small_run_57860 =
    [2, 3683, 1, mozjs_anon_sym_from, 5, 2, mozjs_sym_html_comment, mozjs_sym_comment]"

definition mozjs_small_run_57868 :: "nat list" where
  "mozjs_small_run_57868 =
    [2, 3387, 1, mozjs_anon_sym_GT, 5, 2, mozjs_sym_html_comment, mozjs_sym_comment]"

definition mozjs_small_run_57876 :: "nat list" where
  "mozjs_small_run_57876 =
    [2, 3631, 1, mozjs_anon_sym_meta, 5, 2, mozjs_sym_html_comment, mozjs_sym_comment]"

definition mozjs_small_run_57884 :: "nat list" where
  "mozjs_small_run_57884 =
    [2, 3685, 1, ts_builtin_sym_end, 5, 2, mozjs_sym_html_comment, mozjs_sym_comment]"

definition mozjs_small_run_57892 :: "nat list" where
  "mozjs_small_run_57892 =
    [2, 3687, 1, mozjs_anon_sym_from, 5, 2, mozjs_sym_html_comment, mozjs_sym_comment]"

definition mozjs_small_run_57900 :: "nat list" where
  "mozjs_small_run_57900 =
    [2, 3689, 1, mozjs_anon_sym_EQ_GT, 5, 2, mozjs_sym_html_comment, mozjs_sym_comment]"

definition mozjs_small_run_57908 :: "nat list" where
  "mozjs_small_run_57908 =
    [2, 2082, 1, mozjs_anon_sym_RPAREN, 5, 2, mozjs_sym_html_comment, mozjs_sym_comment]"

definition mozjs_small_run_57916 :: "nat list" where
  "mozjs_small_run_57916 =
    [2, 2118, 1, mozjs_anon_sym_COLON, 5, 2, mozjs_sym_html_comment, mozjs_sym_comment]"

definition mozjs_small_run_57924 :: "nat list" where
  "mozjs_small_run_57924 =
    [2, 3691, 1, mozjs_anon_sym_EQ_GT, 5, 2, mozjs_sym_html_comment, mozjs_sym_comment]"

definition mozjs_small_run_57932 :: "nat list" where
  "mozjs_small_run_57932 =
    [3, 3, 1, mozjs_sym_comment, 5, 1, mozjs_sym_html_comment, 3693, 1, mozjs_anon_sym_SLASH2]"

definition mozjs_small_run_57942 :: "nat list" where
  "mozjs_small_run_57942 =
    [2, 1994, 1, mozjs_anon_sym_RPAREN, 5, 2, mozjs_sym_html_comment, mozjs_sym_comment]"

definition mozjs_small_run_57950 :: "nat list" where
  "mozjs_small_run_57950 =
    [2, 2238, 1, mozjs_anon_sym_in, 5, 2, mozjs_sym_html_comment, mozjs_sym_comment]"

definition mozjs_small_run_57958 :: "nat list" where
  "mozjs_small_run_57958 =
    [2, 2112, 1, mozjs_anon_sym_RPAREN, 5, 2, mozjs_sym_html_comment, mozjs_sym_comment]"

definition mozjs_small_run_57966 :: "nat list" where
  "mozjs_small_run_57966 =
    [2, 3328, 1, mozjs_anon_sym_EQ, 5, 2, mozjs_sym_html_comment, mozjs_sym_comment]"

definition mozjs_small_run_57974 :: "nat list" where
  "mozjs_small_run_57974 =
    [2, 3695, 1, mozjs_anon_sym_EQ_GT, 5, 2, mozjs_sym_html_comment, mozjs_sym_comment]"

definition mozjs_small_run_57982 :: "nat list" where
  "mozjs_small_run_57982 =
    [2, 3697, 1, mozjs_anon_sym_RPAREN, 5, 2, mozjs_sym_html_comment, mozjs_sym_comment]"

definition mozjs_small_run_57990 :: "nat list" where
  "mozjs_small_run_57990 =
    [2, 3699, 1, mozjs_anon_sym_EQ_GT, 5, 2, mozjs_sym_html_comment, mozjs_sym_comment]"

definition mozjs_small_run_57998 :: "nat list" where
  "mozjs_small_run_57998 =
    [2, 3701, 1, mozjs_anon_sym_EQ_GT, 5, 2, mozjs_sym_html_comment, mozjs_sym_comment]"

definition mozjs_small_run_58006 :: "nat list" where
  "mozjs_small_run_58006 =
    [2, 3703, 1, mozjs_anon_sym_EQ_GT, 5, 2, mozjs_sym_html_comment, mozjs_sym_comment]"

definition mozjs_small_run_58014 :: "nat list" where
  "mozjs_small_run_58014 =
    [2, 3705, 1, mozjs_anon_sym_as, 5, 2, mozjs_sym_html_comment, mozjs_sym_comment]"

definition mozjs_small_run_58022 :: "nat list" where
  "mozjs_small_run_58022 =
    [2, 2114, 1, mozjs_anon_sym_RPAREN, 5, 2, mozjs_sym_html_comment, mozjs_sym_comment]"

definition mozjs_small_run_58030 :: "nat list" where
  "mozjs_small_run_58030 =
    [3, 3, 1, mozjs_sym_comment, 5, 1, mozjs_sym_html_comment, 3707, 1, mozjs_sym_regex_pattern]"

definition mozjs_small_run_58040 :: "nat list" where
  "mozjs_small_run_58040 =
    [2, 2126, 1, mozjs_anon_sym_SEMI, 5, 2, mozjs_sym_html_comment, mozjs_sym_comment]"

definition mozjs_small_run_58048 :: "nat list" where
  "mozjs_small_run_58048 =
    [2, 3447, 1, mozjs_anon_sym_GT, 5, 2, mozjs_sym_html_comment, mozjs_sym_comment]"

definition mozjs_small_run_58056 :: "nat list" where
  "mozjs_small_run_58056 =
    [2, 3709, 1, mozjs_anon_sym_EQ_GT, 5, 2, mozjs_sym_html_comment, mozjs_sym_comment]"

definition mozjs_small_run_58064 :: "nat list" where
  "mozjs_small_run_58064 =
    [2, 2116, 1, mozjs_anon_sym_RPAREN, 5, 2, mozjs_sym_html_comment, mozjs_sym_comment]"

definition mozjs_small_run_58072 :: "nat list" where
  "mozjs_small_run_58072 =
    [2, 2006, 1, mozjs_anon_sym_RPAREN, 5, 2, mozjs_sym_html_comment, mozjs_sym_comment]"

definition mozjs_small_run_58080 :: "nat list" where
  "mozjs_small_run_58080 =
    [2, 3711, 1, mozjs_sym_identifier, 5, 2, mozjs_sym_html_comment, mozjs_sym_comment]"

definition mozjs_small_run_58088 :: "nat list" where
  "mozjs_small_run_58088 =
    [2, 3713, 1, mozjs_anon_sym_RPAREN, 5, 2, mozjs_sym_html_comment, mozjs_sym_comment]"

definition mozjs_small_run_58096 :: "nat list" where
  "mozjs_small_run_58096 =
    [2, 2128, 1, mozjs_anon_sym_RPAREN, 5, 2, mozjs_sym_html_comment, mozjs_sym_comment]"

definition mozjs_small_run_58104 :: "nat list" where
  "mozjs_small_run_58104 =
    [2, 2056, 1, mozjs_anon_sym_SEMI, 5, 2, mozjs_sym_html_comment, mozjs_sym_comment]"

definition mozjs_small_run_58112 :: "nat list" where
  "mozjs_small_run_58112 =
    [2, 3715, 1, mozjs_anon_sym_EQ, 5, 2, mozjs_sym_html_comment, mozjs_sym_comment]"

definition mozjs_small_run_58120 :: "nat list" where
  "mozjs_small_run_58120 =
    [2, 3717, 1, mozjs_anon_sym_RPAREN, 5, 2, mozjs_sym_html_comment, mozjs_sym_comment]"

definition mozjs_small_run_58128 :: "nat list" where
  "mozjs_small_run_58128 =
    [2, 3719, 1, mozjs_anon_sym_EQ_GT, 5, 2, mozjs_sym_html_comment, mozjs_sym_comment]"

definition mozjs_small_run_58136 :: "nat list" where
  "mozjs_small_run_58136 =
    [2, 3721, 1, mozjs_anon_sym_EQ_GT, 5, 2, mozjs_sym_html_comment, mozjs_sym_comment]"

definition mozjs_small_run_58144 :: "nat list" where
  "mozjs_small_run_58144 =
    [2, 1911, 1, mozjs_anon_sym_in, 5, 2, mozjs_sym_html_comment, mozjs_sym_comment]"

definition mozjs_small_run_58152 :: "nat list" where
  "mozjs_small_run_58152 =
    [2, 3723, 1, mozjs_anon_sym_COLON, 5, 2, mozjs_sym_html_comment, mozjs_sym_comment]"

definition mozjs_small_run_58160 :: "nat list" where
  "mozjs_small_run_58160 =
    [2, 3725, 1, mozjs_anon_sym_function, 5, 2, mozjs_sym_html_comment, mozjs_sym_comment]"

definition mozjs_small_run_58168 :: "nat list" where
  "mozjs_small_run_58168 =
    [2, 2130, 1, mozjs_anon_sym_SEMI, 5, 2, mozjs_sym_html_comment, mozjs_sym_comment]"

definition mozjs_small_run_58176 :: "nat list" where
  "mozjs_small_run_58176 =
    [2, 3727, 1, mozjs_anon_sym_while, 5, 2, mozjs_sym_html_comment, mozjs_sym_comment]"

definition mozjs_small_run_58184 :: "nat list" where
  "mozjs_small_run_58184 =
    [3, 3, 1, mozjs_sym_comment, 5, 1, mozjs_sym_html_comment, 3729, 1, mozjs_anon_sym_SLASH2]"

definition mozjs_small_run_58194 :: "nat list" where
  "mozjs_small_run_58194 =
    [2, 3731, 1, mozjs_anon_sym_EQ, 5, 2, mozjs_sym_html_comment, mozjs_sym_comment]"

definition mozjs_small_run_58202 :: "nat list" where
  "mozjs_small_run_58202 =
    [2, 3733, 1, mozjs_anon_sym_RPAREN, 5, 2, mozjs_sym_html_comment, mozjs_sym_comment]"

definition mozjs_small_run_58210 :: "nat list" where
  "mozjs_small_run_58210 =
    [3, 3, 1, mozjs_sym_comment, 5, 1, mozjs_sym_html_comment, 3735, 1, mozjs_anon_sym_SLASH2]"

definition mozjs_small_run_58220 :: "nat list" where
  "mozjs_small_run_58220 =
    [2, 2012, 1, mozjs_anon_sym_RPAREN, 5, 2, mozjs_sym_html_comment, mozjs_sym_comment]"

definition mozjs_small_run_58228 :: "nat list" where
  "mozjs_small_run_58228 =
    [2, 3385, 1, mozjs_anon_sym_GT, 5, 2, mozjs_sym_html_comment, mozjs_sym_comment]"

definition mozjs_small_run_58236 :: "nat list" where
  "mozjs_small_run_58236 =
    [2, 2136, 1, mozjs_anon_sym_RPAREN, 5, 2, mozjs_sym_html_comment, mozjs_sym_comment]"

definition mozjs_small_run_58244 :: "nat list" where
  "mozjs_small_run_58244 =
    [2, 2132, 1, mozjs_anon_sym_SEMI, 5, 2, mozjs_sym_html_comment, mozjs_sym_comment]"

definition mozjs_small_run_58252 :: "nat list" where
  "mozjs_small_run_58252 =
    [2, 2068, 1, mozjs_anon_sym_RPAREN, 5, 2, mozjs_sym_html_comment, mozjs_sym_comment]"

definition mozjs_small_run_58260 :: "nat list" where
  "mozjs_small_run_58260 =
    [2, 3737, 1, mozjs_sym_identifier, 5, 2, mozjs_sym_html_comment, mozjs_sym_comment]"

definition mozjs_small_run_58268 :: "nat list" where
  "mozjs_small_run_58268 =
    [2, 1996, 1, mozjs_anon_sym_RPAREN, 5, 2, mozjs_sym_html_comment, mozjs_sym_comment]"

definition mozjs_small_run_58276 :: "nat list" where
  "mozjs_small_run_58276 =
    [2, 3739, 1, mozjs_sym_identifier, 5, 2, mozjs_sym_html_comment, mozjs_sym_comment]"

definition mozjs_small_run_58284 :: "nat list" where
  "mozjs_small_run_58284 =
    [2, 3741, 1, mozjs_anon_sym_EQ, 5, 2, mozjs_sym_html_comment, mozjs_sym_comment]"

definition mozjs_small_run_58292 :: "nat list" where
  "mozjs_small_run_58292 =
    [2, 3623, 1, mozjs_anon_sym_meta, 5, 2, mozjs_sym_html_comment, mozjs_sym_comment]"

definition mozjs_small_run_58300 :: "nat list" where
  "mozjs_small_run_58300 =
    [2, 3453, 1, mozjs_anon_sym_RBRACE, 5, 2, mozjs_sym_html_comment, mozjs_sym_comment]"

definition mozjs_small_run_58308 :: "nat list" where
  "mozjs_small_run_58308 =
    [2, 3743, 1, mozjs_anon_sym_from, 5, 2, mozjs_sym_html_comment, mozjs_sym_comment]"

definition mozjs_small_run_58316 :: "nat list" where
  "mozjs_small_run_58316 =
    [2, 2008, 1, mozjs_anon_sym_RPAREN, 5, 2, mozjs_sym_html_comment, mozjs_sym_comment]"

definition mozjs_small_run_58324 :: "nat list" where
  "mozjs_small_run_58324 =
    [2, 3745, 1, mozjs_anon_sym_RPAREN, 5, 2, mozjs_sym_html_comment, mozjs_sym_comment]"

definition mozjs_small_run_58332 :: "nat list" where
  "mozjs_small_run_58332 =
    [2, 3747, 1, mozjs_sym_identifier, 5, 2, mozjs_sym_html_comment, mozjs_sym_comment]"

definition mozjs_small_run_58340 :: "nat list" where
  "mozjs_small_run_58340 =
    [2, 3493, 1, mozjs_anon_sym_RBRACE, 5, 2, mozjs_sym_html_comment, mozjs_sym_comment]"

definition mozjs_small_run_58348 :: "nat list" where
  "mozjs_small_run_58348 =
    [2, 3749, 1, mozjs_anon_sym_from, 5, 2, mozjs_sym_html_comment, mozjs_sym_comment]"

definition mozjs_small_run_58356 :: "nat list" where
  "mozjs_small_run_58356 =
    [2, 2032, 1, mozjs_anon_sym_RBRACE, 5, 2, mozjs_sym_html_comment, mozjs_sym_comment]"

definition mozjs_small_run_58364 :: "nat list" where
  "mozjs_small_run_58364 =
    [2, 3751, 1, mozjs_anon_sym_EQ_GT, 5, 2, mozjs_sym_html_comment, mozjs_sym_comment]"

definition mozjs_small_run_58372 :: "nat list" where
  "mozjs_small_run_58372 =
    [2, 2134, 1, mozjs_anon_sym_SEMI, 5, 2, mozjs_sym_html_comment, mozjs_sym_comment]"

definition mozjs_small_run_58380 :: "nat list" where
  "mozjs_small_run_58380 =
    [2, 3753, 1, mozjs_anon_sym_EQ_GT, 5, 2, mozjs_sym_html_comment, mozjs_sym_comment]"

section \<open>The table and its index\<close>

definition mozjs_small_table_0 :: "(nat \<times> nat list) list" where
  "mozjs_small_table_0 =
    [(0, mozjs_small_run_0), (73, mozjs_small_run_73)]"

definition mozjs_small_table_1 :: "(nat \<times> nat list) list" where
  "mozjs_small_table_1 =
    [(160, mozjs_small_run_160), (231, mozjs_small_run_231)]"

definition mozjs_small_table_2 :: "(nat \<times> nat list) list" where
  "mozjs_small_table_2 =
    [(318, mozjs_small_run_318), (409, mozjs_small_run_409)]"

definition mozjs_small_table_3 :: "(nat \<times> nat list) list" where
  "mozjs_small_table_3 =
    [(480, mozjs_small_run_480), (551, mozjs_small_run_551)]"

definition mozjs_small_table_4 :: "(nat \<times> nat list) list" where
  "mozjs_small_table_4 =
    [(622, mozjs_small_run_622), (693, mozjs_small_run_693)]"

definition mozjs_small_table_5 :: "(nat \<times> nat list) list" where
  "mozjs_small_table_5 =
    [(766, mozjs_small_run_766), (837, mozjs_small_run_837)]"

definition mozjs_small_table_6 :: "(nat \<times> nat list) list" where
  "mozjs_small_table_6 =
    [(910, mozjs_small_run_910), (983, mozjs_small_run_983)]"

definition mozjs_small_table_7 :: "(nat \<times> nat list) list" where
  "mozjs_small_table_7 =
    [(1056, mozjs_small_run_1056), (1129, mozjs_small_run_1129)]"

definition mozjs_small_table_8 :: "(nat \<times> nat list) list" where
  "mozjs_small_table_8 =
    [(1204, mozjs_small_run_1204), (1277, mozjs_small_run_1277)]"

definition mozjs_small_table_9 :: "(nat \<times> nat list) list" where
  "mozjs_small_table_9 =
    [(1350, mozjs_small_run_1350), (1423, mozjs_small_run_1423)]"

definition mozjs_small_table_10 :: "(nat \<times> nat list) list" where
  "mozjs_small_table_10 =
    [(1496, mozjs_small_run_1496), (1569, mozjs_small_run_1569)]"

definition mozjs_small_table_11 :: "(nat \<times> nat list) list" where
  "mozjs_small_table_11 =
    [(1640, mozjs_small_run_1640), (1710, mozjs_small_run_1710)]"

definition mozjs_small_table_12 :: "(nat \<times> nat list) list" where
  "mozjs_small_table_12 =
    [(1780, mozjs_small_run_1780), (1850, mozjs_small_run_1850)]"

definition mozjs_small_table_13 :: "(nat \<times> nat list) list" where
  "mozjs_small_table_13 =
    [(1920, mozjs_small_run_1920), (1990, mozjs_small_run_1990)]"

definition mozjs_small_table_14 :: "(nat \<times> nat list) list" where
  "mozjs_small_table_14 =
    [(2060, mozjs_small_run_2060), (2130, mozjs_small_run_2130)]"

definition mozjs_small_table_15 :: "(nat \<times> nat list) list" where
  "mozjs_small_table_15 =
    [(2200, mozjs_small_run_2200), (2270, mozjs_small_run_2270)]"

definition mozjs_small_table_16 :: "(nat \<times> nat list) list" where
  "mozjs_small_table_16 =
    [(2340, mozjs_small_run_2340), (2410, mozjs_small_run_2410)]"

definition mozjs_small_table_17 :: "(nat \<times> nat list) list" where
  "mozjs_small_table_17 =
    [(2480, mozjs_small_run_2480), (2550, mozjs_small_run_2550)]"

definition mozjs_small_table_18 :: "(nat \<times> nat list) list" where
  "mozjs_small_table_18 =
    [(2620, mozjs_small_run_2620), (2690, mozjs_small_run_2690)]"

definition mozjs_small_table_19 :: "(nat \<times> nat list) list" where
  "mozjs_small_table_19 =
    [(2760, mozjs_small_run_2760), (2830, mozjs_small_run_2830)]"

definition mozjs_small_table_20 :: "(nat \<times> nat list) list" where
  "mozjs_small_table_20 =
    [(2900, mozjs_small_run_2900), (2970, mozjs_small_run_2970)]"

definition mozjs_small_table_21 :: "(nat \<times> nat list) list" where
  "mozjs_small_table_21 =
    [(3040, mozjs_small_run_3040), (3110, mozjs_small_run_3110)]"

definition mozjs_small_table_22 :: "(nat \<times> nat list) list" where
  "mozjs_small_table_22 =
    [(3180, mozjs_small_run_3180), (3250, mozjs_small_run_3250)]"

definition mozjs_small_table_23 :: "(nat \<times> nat list) list" where
  "mozjs_small_table_23 =
    [(3320, mozjs_small_run_3320), (3390, mozjs_small_run_3390)]"

definition mozjs_small_table_24 :: "(nat \<times> nat list) list" where
  "mozjs_small_table_24 =
    [(3460, mozjs_small_run_3460), (3530, mozjs_small_run_3530)]"

definition mozjs_small_table_25 :: "(nat \<times> nat list) list" where
  "mozjs_small_table_25 =
    [(3600, mozjs_small_run_3600), (3670, mozjs_small_run_3670)]"

definition mozjs_small_table_26 :: "(nat \<times> nat list) list" where
  "mozjs_small_table_26 =
    [(3740, mozjs_small_run_3740), (3826, mozjs_small_run_3826)]"

definition mozjs_small_table_27 :: "(nat \<times> nat list) list" where
  "mozjs_small_table_27 =
    [(3896, mozjs_small_run_3896), (3966, mozjs_small_run_3966)]"

definition mozjs_small_table_28 :: "(nat \<times> nat list) list" where
  "mozjs_small_table_28 =
    [(4036, mozjs_small_run_4036), (4122, mozjs_small_run_4122)]"

definition mozjs_small_table_29 :: "(nat \<times> nat list) list" where
  "mozjs_small_table_29 =
    [(4192, mozjs_small_run_4192), (4262, mozjs_small_run_4262)]"

definition mozjs_small_table_30 :: "(nat \<times> nat list) list" where
  "mozjs_small_table_30 =
    [(4332, mozjs_small_run_4332), (4402, mozjs_small_run_4402)]"

definition mozjs_small_table_31 :: "(nat \<times> nat list) list" where
  "mozjs_small_table_31 =
    [(4472, mozjs_small_run_4472), (4542, mozjs_small_run_4542)]"

definition mozjs_small_table_32 :: "(nat \<times> nat list) list" where
  "mozjs_small_table_32 =
    [(4612, mozjs_small_run_4612), (4682, mozjs_small_run_4682)]"

definition mozjs_small_table_33 :: "(nat \<times> nat list) list" where
  "mozjs_small_table_33 =
    [(4772, mozjs_small_run_4772), (4842, mozjs_small_run_4842)]"

definition mozjs_small_table_34 :: "(nat \<times> nat list) list" where
  "mozjs_small_table_34 =
    [(4912, mozjs_small_run_4912), (4982, mozjs_small_run_4982)]"

definition mozjs_small_table_35 :: "(nat \<times> nat list) list" where
  "mozjs_small_table_35 =
    [(5052, mozjs_small_run_5052), (5142, mozjs_small_run_5142)]"

definition mozjs_small_table_36 :: "(nat \<times> nat list) list" where
  "mozjs_small_table_36 =
    [(5212, mozjs_small_run_5212), (5282, mozjs_small_run_5282)]"

definition mozjs_small_table_37 :: "(nat \<times> nat list) list" where
  "mozjs_small_table_37 =
    [(5352, mozjs_small_run_5352), (5422, mozjs_small_run_5422)]"

definition mozjs_small_table_38 :: "(nat \<times> nat list) list" where
  "mozjs_small_table_38 =
    [(5492, mozjs_small_run_5492), (5562, mozjs_small_run_5562)]"

definition mozjs_small_table_39 :: "(nat \<times> nat list) list" where
  "mozjs_small_table_39 =
    [(5632, mozjs_small_run_5632), (5702, mozjs_small_run_5702)]"

definition mozjs_small_table_40 :: "(nat \<times> nat list) list" where
  "mozjs_small_table_40 =
    [(5772, mozjs_small_run_5772), (5842, mozjs_small_run_5842)]"

definition mozjs_small_table_41 :: "(nat \<times> nat list) list" where
  "mozjs_small_table_41 =
    [(5912, mozjs_small_run_5912), (5982, mozjs_small_run_5982)]"

definition mozjs_small_table_42 :: "(nat \<times> nat list) list" where
  "mozjs_small_table_42 =
    [(6052, mozjs_small_run_6052), (6122, mozjs_small_run_6122)]"

definition mozjs_small_table_43 :: "(nat \<times> nat list) list" where
  "mozjs_small_table_43 =
    [(6192, mozjs_small_run_6192), (6262, mozjs_small_run_6262)]"

definition mozjs_small_table_44 :: "(nat \<times> nat list) list" where
  "mozjs_small_table_44 =
    [(6332, mozjs_small_run_6332), (6402, mozjs_small_run_6402)]"

definition mozjs_small_table_45 :: "(nat \<times> nat list) list" where
  "mozjs_small_table_45 =
    [(6472, mozjs_small_run_6472), (6542, mozjs_small_run_6542)]"

definition mozjs_small_table_46 :: "(nat \<times> nat list) list" where
  "mozjs_small_table_46 =
    [(6612, mozjs_small_run_6612), (6682, mozjs_small_run_6682)]"

definition mozjs_small_table_47 :: "(nat \<times> nat list) list" where
  "mozjs_small_table_47 =
    [(6752, mozjs_small_run_6752), (6838, mozjs_small_run_6838)]"

definition mozjs_small_table_48 :: "(nat \<times> nat list) list" where
  "mozjs_small_table_48 =
    [(6924, mozjs_small_run_6924), (7010, mozjs_small_run_7010)]"

definition mozjs_small_table_49 :: "(nat \<times> nat list) list" where
  "mozjs_small_table_49 =
    [(7080, mozjs_small_run_7080), (7170, mozjs_small_run_7170)]"

definition mozjs_small_table_50 :: "(nat \<times> nat list) list" where
  "mozjs_small_table_50 =
    [(7240, mozjs_small_run_7240), (7328, mozjs_small_run_7328)]"

definition mozjs_small_table_51 :: "(nat \<times> nat list) list" where
  "mozjs_small_table_51 =
    [(7414, mozjs_small_run_7414), (7480, mozjs_small_run_7480)]"

definition mozjs_small_table_52 :: "(nat \<times> nat list) list" where
  "mozjs_small_table_52 =
    [(7562, mozjs_small_run_7562), (7628, mozjs_small_run_7628)]"

definition mozjs_small_table_53 :: "(nat \<times> nat list) list" where
  "mozjs_small_table_53 =
    [(7694, mozjs_small_run_7694), (7760, mozjs_small_run_7760)]"

definition mozjs_small_table_54 :: "(nat \<times> nat list) list" where
  "mozjs_small_table_54 =
    [(7826, mozjs_small_run_7826), (7908, mozjs_small_run_7908)]"

definition mozjs_small_table_55 :: "(nat \<times> nat list) list" where
  "mozjs_small_table_55 =
    [(7974, mozjs_small_run_7974), (8040, mozjs_small_run_8040)]"

definition mozjs_small_table_56 :: "(nat \<times> nat list) list" where
  "mozjs_small_table_56 =
    [(8110, mozjs_small_run_8110), (8192, mozjs_small_run_8192)]"

definition mozjs_small_table_57 :: "(nat \<times> nat list) list" where
  "mozjs_small_table_57 =
    [(8257, mozjs_small_run_8257), (8328, mozjs_small_run_8328)]"

definition mozjs_small_table_58 :: "(nat \<times> nat list) list" where
  "mozjs_small_table_58 =
    [(8411, mozjs_small_run_8411), (8482, mozjs_small_run_8482)]"

definition mozjs_small_table_59 :: "(nat \<times> nat list) list" where
  "mozjs_small_table_59 =
    [(8547, mozjs_small_run_8547), (8618, mozjs_small_run_8618)]"

definition mozjs_small_table_60 :: "(nat \<times> nat list) list" where
  "mozjs_small_table_60 =
    [(8683, mozjs_small_run_8683), (8748, mozjs_small_run_8748)]"

definition mozjs_small_table_61 :: "(nat \<times> nat list) list" where
  "mozjs_small_table_61 =
    [(8813, mozjs_small_run_8813), (8878, mozjs_small_run_8878)]"

definition mozjs_small_table_62 :: "(nat \<times> nat list) list" where
  "mozjs_small_table_62 =
    [(8949, mozjs_small_run_8949), (9014, mozjs_small_run_9014)]"

definition mozjs_small_table_63 :: "(nat \<times> nat list) list" where
  "mozjs_small_table_63 =
    [(9079, mozjs_small_run_9079), (9144, mozjs_small_run_9144)]"

definition mozjs_small_table_64 :: "(nat \<times> nat list) list" where
  "mozjs_small_table_64 =
    [(9209, mozjs_small_run_9209), (9274, mozjs_small_run_9274)]"

definition mozjs_small_table_65 :: "(nat \<times> nat list) list" where
  "mozjs_small_table_65 =
    [(9339, mozjs_small_run_9339), (9404, mozjs_small_run_9404)]"

definition mozjs_small_table_66 :: "(nat \<times> nat list) list" where
  "mozjs_small_table_66 =
    [(9469, mozjs_small_run_9469), (9534, mozjs_small_run_9534)]"

definition mozjs_small_table_67 :: "(nat \<times> nat list) list" where
  "mozjs_small_table_67 =
    [(9599, mozjs_small_run_9599), (9664, mozjs_small_run_9664)]"

definition mozjs_small_table_68 :: "(nat \<times> nat list) list" where
  "mozjs_small_table_68 =
    [(9729, mozjs_small_run_9729), (9794, mozjs_small_run_9794)]"

definition mozjs_small_table_69 :: "(nat \<times> nat list) list" where
  "mozjs_small_table_69 =
    [(9862, mozjs_small_run_9862), (9925, mozjs_small_run_9925)]"

definition mozjs_small_table_70 :: "(nat \<times> nat list) list" where
  "mozjs_small_table_70 =
    [(9994, mozjs_small_run_9994), (10065, mozjs_small_run_10065)]"

definition mozjs_small_table_71 :: "(nat \<times> nat list) list" where
  "mozjs_small_table_71 =
    [(10136, mozjs_small_run_10136), (10199, mozjs_small_run_10199)]"

definition mozjs_small_table_72 :: "(nat \<times> nat list) list" where
  "mozjs_small_table_72 =
    [(10270, mozjs_small_run_10270), (10333, mozjs_small_run_10333)]"

definition mozjs_small_table_73 :: "(nat \<times> nat list) list" where
  "mozjs_small_table_73 =
    [(10402, mozjs_small_run_10402), (10465, mozjs_small_run_10465)]"

definition mozjs_small_table_74 :: "(nat \<times> nat list) list" where
  "mozjs_small_table_74 =
    [(10528, mozjs_small_run_10528), (10597, mozjs_small_run_10597)]"

definition mozjs_small_table_75 :: "(nat \<times> nat list) list" where
  "mozjs_small_table_75 =
    [(10668, mozjs_small_run_10668), (10739, mozjs_small_run_10739)]"

definition mozjs_small_table_76 :: "(nat \<times> nat list) list" where
  "mozjs_small_table_76 =
    [(10808, mozjs_small_run_10808), (10879, mozjs_small_run_10879)]"

definition mozjs_small_table_77 :: "(nat \<times> nat list) list" where
  "mozjs_small_table_77 =
    [(10948, mozjs_small_run_10948), (11019, mozjs_small_run_11019)]"

definition mozjs_small_table_78 :: "(nat \<times> nat list) list" where
  "mozjs_small_table_78 =
    [(11088, mozjs_small_run_11088), (11151, mozjs_small_run_11151)]"

definition mozjs_small_table_79 :: "(nat \<times> nat list) list" where
  "mozjs_small_table_79 =
    [(11214, mozjs_small_run_11214), (11281, mozjs_small_run_11281)]"

definition mozjs_small_table_80 :: "(nat \<times> nat list) list" where
  "mozjs_small_table_80 =
    [(11352, mozjs_small_run_11352), (11423, mozjs_small_run_11423)]"

definition mozjs_small_table_81 :: "(nat \<times> nat list) list" where
  "mozjs_small_table_81 =
    [(11494, mozjs_small_run_11494), (11563, mozjs_small_run_11563)]"

definition mozjs_small_table_82 :: "(nat \<times> nat list) list" where
  "mozjs_small_table_82 =
    [(11632, mozjs_small_run_11632), (11704, mozjs_small_run_11704)]"

definition mozjs_small_table_83 :: "(nat \<times> nat list) list" where
  "mozjs_small_table_83 =
    [(11774, mozjs_small_run_11774), (11842, mozjs_small_run_11842)]"

definition mozjs_small_table_84 :: "(nat \<times> nat list) list" where
  "mozjs_small_table_84 =
    [(11910, mozjs_small_run_11910), (11976, mozjs_small_run_11976)]"

definition mozjs_small_table_85 :: "(nat \<times> nat list) list" where
  "mozjs_small_table_85 =
    [(12048, mozjs_small_run_12048), (12116, mozjs_small_run_12116)]"

definition mozjs_small_table_86 :: "(nat \<times> nat list) list" where
  "mozjs_small_table_86 =
    [(12182, mozjs_small_run_12182), (12252, mozjs_small_run_12252)]"

definition mozjs_small_table_87 :: "(nat \<times> nat list) list" where
  "mozjs_small_table_87 =
    [(12323, mozjs_small_run_12323), (12392, mozjs_small_run_12392)]"

definition mozjs_small_table_88 :: "(nat \<times> nat list) list" where
  "mozjs_small_table_88 =
    [(12459, mozjs_small_run_12459), (12530, mozjs_small_run_12530)]"

definition mozjs_small_table_89 :: "(nat \<times> nat list) list" where
  "mozjs_small_table_89 =
    [(12596, mozjs_small_run_12596), (12662, mozjs_small_run_12662)]"

definition mozjs_small_table_90 :: "(nat \<times> nat list) list" where
  "mozjs_small_table_90 =
    [(12728, mozjs_small_run_12728), (12794, mozjs_small_run_12794)]"

definition mozjs_small_table_91 :: "(nat \<times> nat list) list" where
  "mozjs_small_table_91 =
    [(12862, mozjs_small_run_12862), (12928, mozjs_small_run_12928)]"

definition mozjs_small_table_92 :: "(nat \<times> nat list) list" where
  "mozjs_small_table_92 =
    [(12994, mozjs_small_run_12994), (13060, mozjs_small_run_13060)]"

definition mozjs_small_table_93 :: "(nat \<times> nat list) list" where
  "mozjs_small_table_93 =
    [(13130, mozjs_small_run_13130), (13196, mozjs_small_run_13196)]"

definition mozjs_small_table_94 :: "(nat \<times> nat list) list" where
  "mozjs_small_table_94 =
    [(13266, mozjs_small_run_13266), (13332, mozjs_small_run_13332)]"

definition mozjs_small_table_95 :: "(nat \<times> nat list) list" where
  "mozjs_small_table_95 =
    [(13398, mozjs_small_run_13398), (13461, mozjs_small_run_13461)]"

definition mozjs_small_table_96 :: "(nat \<times> nat list) list" where
  "mozjs_small_table_96 =
    [(13524, mozjs_small_run_13524), (13591, mozjs_small_run_13591)]"

definition mozjs_small_table_97 :: "(nat \<times> nat list) list" where
  "mozjs_small_table_97 =
    [(13647, mozjs_small_run_13647), (13713, mozjs_small_run_13713)]"

definition mozjs_small_table_98 :: "(nat \<times> nat list) list" where
  "mozjs_small_table_98 =
    [(13773, mozjs_small_run_13773), (13834, mozjs_small_run_13834)]"

definition mozjs_small_table_99 :: "(nat \<times> nat list) list" where
  "mozjs_small_table_99 =
    [(13895, mozjs_small_run_13895), (13958, mozjs_small_run_13958)]"

definition mozjs_small_table_100 :: "(nat \<times> nat list) list" where
  "mozjs_small_table_100 =
    [(14013, mozjs_small_run_14013), (14066, mozjs_small_run_14066), (14119,
      mozjs_small_run_14119)]"

definition mozjs_small_table_101 :: "(nat \<times> nat list) list" where
  "mozjs_small_table_101 =
    [(14172, mozjs_small_run_14172), (14235, mozjs_small_run_14235), (14285,
      mozjs_small_run_14285)]"

definition mozjs_small_table_102 :: "(nat \<times> nat list) list" where
  "mozjs_small_table_102 =
    [(14335, mozjs_small_run_14335), (14385, mozjs_small_run_14385), (14435,
      mozjs_small_run_14435)]"

definition mozjs_small_table_103 :: "(nat \<times> nat list) list" where
  "mozjs_small_table_103 =
    [(14485, mozjs_small_run_14485), (14535, mozjs_small_run_14535), (14585,
      mozjs_small_run_14585)]"

definition mozjs_small_table_104 :: "(nat \<times> nat list) list" where
  "mozjs_small_table_104 =
    [(14639, mozjs_small_run_14639), (14689, mozjs_small_run_14689), (14739,
      mozjs_small_run_14739)]"

definition mozjs_small_table_105 :: "(nat \<times> nat list) list" where
  "mozjs_small_table_105 =
    [(14789, mozjs_small_run_14789), (14839, mozjs_small_run_14839), (14889,
      mozjs_small_run_14889)]"

definition mozjs_small_table_106 :: "(nat \<times> nat list) list" where
  "mozjs_small_table_106 =
    [(14939, mozjs_small_run_14939), (14989, mozjs_small_run_14989), (15039,
      mozjs_small_run_15039)]"

definition mozjs_small_table_107 :: "(nat \<times> nat list) list" where
  "mozjs_small_table_107 =
    [(15089, mozjs_small_run_15089), (15139, mozjs_small_run_15139), (15193,
      mozjs_small_run_15193)]"

definition mozjs_small_table_108 :: "(nat \<times> nat list) list" where
  "mozjs_small_table_108 =
    [(15243, mozjs_small_run_15243), (15293, mozjs_small_run_15293), (15343,
      mozjs_small_run_15343)]"

definition mozjs_small_table_109 :: "(nat \<times> nat list) list" where
  "mozjs_small_table_109 =
    [(15393, mozjs_small_run_15393), (15443, mozjs_small_run_15443), (15493,
      mozjs_small_run_15493)]"

definition mozjs_small_table_110 :: "(nat \<times> nat list) list" where
  "mozjs_small_table_110 =
    [(15543, mozjs_small_run_15543), (15593, mozjs_small_run_15593), (15643,
      mozjs_small_run_15643)]"

definition mozjs_small_table_111 :: "(nat \<times> nat list) list" where
  "mozjs_small_table_111 =
    [(15693, mozjs_small_run_15693), (15743, mozjs_small_run_15743), (15793,
      mozjs_small_run_15793)]"

definition mozjs_small_table_112 :: "(nat \<times> nat list) list" where
  "mozjs_small_table_112 =
    [(15845, mozjs_small_run_15845), (15895, mozjs_small_run_15895), (15945,
      mozjs_small_run_15945)]"

definition mozjs_small_table_113 :: "(nat \<times> nat list) list" where
  "mozjs_small_table_113 =
    [(15995, mozjs_small_run_15995), (16045, mozjs_small_run_16045), (16095,
      mozjs_small_run_16095)]"

definition mozjs_small_table_114 :: "(nat \<times> nat list) list" where
  "mozjs_small_table_114 =
    [(16145, mozjs_small_run_16145), (16195, mozjs_small_run_16195), (16245,
      mozjs_small_run_16245)]"

definition mozjs_small_table_115 :: "(nat \<times> nat list) list" where
  "mozjs_small_table_115 =
    [(16295, mozjs_small_run_16295), (16345, mozjs_small_run_16345), (16395,
      mozjs_small_run_16395)]"

definition mozjs_small_table_116 :: "(nat \<times> nat list) list" where
  "mozjs_small_table_116 =
    [(16445, mozjs_small_run_16445), (16495, mozjs_small_run_16495), (16545,
      mozjs_small_run_16545)]"

definition mozjs_small_table_117 :: "(nat \<times> nat list) list" where
  "mozjs_small_table_117 =
    [(16595, mozjs_small_run_16595), (16645, mozjs_small_run_16645), (16695,
      mozjs_small_run_16695)]"

definition mozjs_small_table_118 :: "(nat \<times> nat list) list" where
  "mozjs_small_table_118 =
    [(16745, mozjs_small_run_16745), (16795, mozjs_small_run_16795), (16845,
      mozjs_small_run_16845)]"

definition mozjs_small_table_119 :: "(nat \<times> nat list) list" where
  "mozjs_small_table_119 =
    [(16895, mozjs_small_run_16895), (16945, mozjs_small_run_16945), (16995,
      mozjs_small_run_16995)]"

definition mozjs_small_table_120 :: "(nat \<times> nat list) list" where
  "mozjs_small_table_120 =
    [(17045, mozjs_small_run_17045), (17095, mozjs_small_run_17095), (17145,
      mozjs_small_run_17145)]"

definition mozjs_small_table_121 :: "(nat \<times> nat list) list" where
  "mozjs_small_table_121 =
    [(17199, mozjs_small_run_17199), (17249, mozjs_small_run_17249)]"

definition mozjs_small_table_122 :: "(nat \<times> nat list) list" where
  "mozjs_small_table_122 =
    [(17299, mozjs_small_run_17299), (17376, mozjs_small_run_17376)]"

definition mozjs_small_table_123 :: "(nat \<times> nat list) list" where
  "mozjs_small_table_123 =
    [(17425, mozjs_small_run_17425), (17476, mozjs_small_run_17476)]"

definition mozjs_small_table_124 :: "(nat \<times> nat list) list" where
  "mozjs_small_table_124 =
    [(17525, mozjs_small_run_17525), (17618, mozjs_small_run_17618)]"

definition mozjs_small_table_125 :: "(nat \<times> nat list) list" where
  "mozjs_small_table_125 =
    [(17681, mozjs_small_run_17681), (17766, mozjs_small_run_17766)]"

definition mozjs_small_table_126 :: "(nat \<times> nat list) list" where
  "mozjs_small_table_126 =
    [(17853, mozjs_small_run_17853), (17922, mozjs_small_run_17922)]"

definition mozjs_small_table_127 :: "(nat \<times> nat list) list" where
  "mozjs_small_table_127 =
    [(18003, mozjs_small_run_18003), (18086, mozjs_small_run_18086)]"

definition mozjs_small_table_128 :: "(nat \<times> nat list) list" where
  "mozjs_small_table_128 =
    [(18171, mozjs_small_run_18171), (18264, mozjs_small_run_18264)]"

definition mozjs_small_table_129 :: "(nat \<times> nat list) list" where
  "mozjs_small_table_129 =
    [(18331, mozjs_small_run_18331), (18424, mozjs_small_run_18424)]"

definition mozjs_small_table_130 :: "(nat \<times> nat list) list" where
  "mozjs_small_table_130 =
    [(18487, mozjs_small_run_18487), (18536, mozjs_small_run_18536)]"

definition mozjs_small_table_131 :: "(nat \<times> nat list) list" where
  "mozjs_small_table_131 =
    [(18625, mozjs_small_run_18625), (18688, mozjs_small_run_18688)]"

definition mozjs_small_table_132 :: "(nat \<times> nat list) list" where
  "mozjs_small_table_132 =
    [(18781, mozjs_small_run_18781), (18874, mozjs_small_run_18874)]"

definition mozjs_small_table_133 :: "(nat \<times> nat list) list" where
  "mozjs_small_table_133 =
    [(18967, mozjs_small_run_18967), (19060, mozjs_small_run_19060)]"

definition mozjs_small_table_134 :: "(nat \<times> nat list) list" where
  "mozjs_small_table_134 =
    [(19153, mozjs_small_run_19153), (19246, mozjs_small_run_19246)]"

definition mozjs_small_table_135 :: "(nat \<times> nat list) list" where
  "mozjs_small_table_135 =
    [(19339, mozjs_small_run_19339), (19390, mozjs_small_run_19390)]"

definition mozjs_small_table_136 :: "(nat \<times> nat list) list" where
  "mozjs_small_table_136 =
    [(19439, mozjs_small_run_19439), (19512, mozjs_small_run_19512)]"

definition mozjs_small_table_137 :: "(nat \<times> nat list) list" where
  "mozjs_small_table_137 =
    [(19569, mozjs_small_run_19569), (19662, mozjs_small_run_19662)]"

definition mozjs_small_table_138 :: "(nat \<times> nat list) list" where
  "mozjs_small_table_138 =
    [(19755, mozjs_small_run_19755), (19806, mozjs_small_run_19806), (19857,
      mozjs_small_run_19857)]"

definition mozjs_small_table_139 :: "(nat \<times> nat list) list" where
  "mozjs_small_table_139 =
    [(19905, mozjs_small_run_19905), (19955, mozjs_small_run_19955)]"

definition mozjs_small_table_140 :: "(nat \<times> nat list) list" where
  "mozjs_small_table_140 =
    [(20013, mozjs_small_run_20013), (20105, mozjs_small_run_20105)]"

definition mozjs_small_table_141 :: "(nat \<times> nat list) list" where
  "mozjs_small_table_141 =
    [(20155, mozjs_small_run_20155), (20207, mozjs_small_run_20207), (20265,
      mozjs_small_run_20265)]"

definition mozjs_small_table_142 :: "(nat \<times> nat list) list" where
  "mozjs_small_table_142 =
    [(20313, mozjs_small_run_20313), (20365, mozjs_small_run_20365), (20419,
      mozjs_small_run_20419)]"

definition mozjs_small_table_143 :: "(nat \<times> nat list) list" where
  "mozjs_small_table_143 =
    [(20469, mozjs_small_run_20469), (20529, mozjs_small_run_20529), (20579,
      mozjs_small_run_20579)]"

definition mozjs_small_table_144 :: "(nat \<times> nat list) list" where
  "mozjs_small_table_144 =
    [(20639, mozjs_small_run_20639), (20730, mozjs_small_run_20730)]"

definition mozjs_small_table_145 :: "(nat \<times> nat list) list" where
  "mozjs_small_table_145 =
    [(20777, mozjs_small_run_20777), (20868, mozjs_small_run_20868)]"

definition mozjs_small_table_146 :: "(nat \<times> nat list) list" where
  "mozjs_small_table_146 =
    [(20915, mozjs_small_run_20915), (20962, mozjs_small_run_20962)]"

definition mozjs_small_table_147 :: "(nat \<times> nat list) list" where
  "mozjs_small_table_147 =
    [(21011, mozjs_small_run_21011), (21102, mozjs_small_run_21102)]"

definition mozjs_small_table_148 :: "(nat \<times> nat list) list" where
  "mozjs_small_table_148 =
    [(21193, mozjs_small_run_21193), (21264, mozjs_small_run_21264)]"

definition mozjs_small_table_149 :: "(nat \<times> nat list) list" where
  "mozjs_small_table_149 =
    [(21325, mozjs_small_run_21325), (21372, mozjs_small_run_21372)]"

definition mozjs_small_table_150 :: "(nat \<times> nat list) list" where
  "mozjs_small_table_150 =
    [(21455, mozjs_small_run_21455), (21540, mozjs_small_run_21540)]"

definition mozjs_small_table_151 :: "(nat \<times> nat list) list" where
  "mozjs_small_table_151 =
    [(21607, mozjs_small_run_21607), (21686, mozjs_small_run_21686)]"

definition mozjs_small_table_152 :: "(nat \<times> nat list) list" where
  "mozjs_small_table_152 =
    [(21767, mozjs_small_run_21767), (21850, mozjs_small_run_21850)]"

definition mozjs_small_table_153 :: "(nat \<times> nat list) list" where
  "mozjs_small_table_153 =
    [(21915, mozjs_small_run_21915), (21976, mozjs_small_run_21976)]"

definition mozjs_small_table_154 :: "(nat \<times> nat list) list" where
  "mozjs_small_table_154 =
    [(22051, mozjs_small_run_22051), (22138, mozjs_small_run_22138)]"

definition mozjs_small_table_155 :: "(nat \<times> nat list) list" where
  "mozjs_small_table_155 =
    [(22229, mozjs_small_run_22229), (22320, mozjs_small_run_22320)]"

definition mozjs_small_table_156 :: "(nat \<times> nat list) list" where
  "mozjs_small_table_156 =
    [(22411, mozjs_small_run_22411), (22458, mozjs_small_run_22458)]"

definition mozjs_small_table_157 :: "(nat \<times> nat list) list" where
  "mozjs_small_table_157 =
    [(22549, mozjs_small_run_22549), (22640, mozjs_small_run_22640)]"

definition mozjs_small_table_158 :: "(nat \<times> nat list) list" where
  "mozjs_small_table_158 =
    [(22731, mozjs_small_run_22731), (22778, mozjs_small_run_22778)]"

definition mozjs_small_table_159 :: "(nat \<times> nat list) list" where
  "mozjs_small_table_159 =
    [(22869, mozjs_small_run_22869), (22940, mozjs_small_run_22940)]"

definition mozjs_small_table_160 :: "(nat \<times> nat list) list" where
  "mozjs_small_table_160 =
    [(23031, mozjs_small_run_23031), (23078, mozjs_small_run_23078), (23125,
      mozjs_small_run_23125)]"

definition mozjs_small_table_161 :: "(nat \<times> nat list) list" where
  "mozjs_small_table_161 =
    [(23172, mozjs_small_run_23172), (23263, mozjs_small_run_23263)]"

definition mozjs_small_table_162 :: "(nat \<times> nat list) list" where
  "mozjs_small_table_162 =
    [(23310, mozjs_small_run_23310), (23357, mozjs_small_run_23357), (23404,
      mozjs_small_run_23404)]"

definition mozjs_small_table_163 :: "(nat \<times> nat list) list" where
  "mozjs_small_table_163 =
    [(23451, mozjs_small_run_23451), (23502, mozjs_small_run_23502), (23549,
      mozjs_small_run_23549)]"

definition mozjs_small_table_164 :: "(nat \<times> nat list) list" where
  "mozjs_small_table_164 =
    [(23596, mozjs_small_run_23596), (23643, mozjs_small_run_23643), (23694,
      mozjs_small_run_23694)]"

definition mozjs_small_table_165 :: "(nat \<times> nat list) list" where
  "mozjs_small_table_165 =
    [(23745, mozjs_small_run_23745), (23792, mozjs_small_run_23792)]"

definition mozjs_small_table_166 :: "(nat \<times> nat list) list" where
  "mozjs_small_table_166 =
    [(23839, mozjs_small_run_23839), (23930, mozjs_small_run_23930)]"

definition mozjs_small_table_167 :: "(nat \<times> nat list) list" where
  "mozjs_small_table_167 =
    [(24021, mozjs_small_run_24021), (24072, mozjs_small_run_24072)]"

definition mozjs_small_table_168 :: "(nat \<times> nat list) list" where
  "mozjs_small_table_168 =
    [(24163, mozjs_small_run_24163), (24214, mozjs_small_run_24214)]"

definition mozjs_small_table_169 :: "(nat \<times> nat list) list" where
  "mozjs_small_table_169 =
    [(24261, mozjs_small_run_24261), (24352, mozjs_small_run_24352)]"

definition mozjs_small_table_170 :: "(nat \<times> nat list) list" where
  "mozjs_small_table_170 =
    [(24399, mozjs_small_run_24399), (24460, mozjs_small_run_24460)]"

definition mozjs_small_table_171 :: "(nat \<times> nat list) list" where
  "mozjs_small_table_171 =
    [(24509, mozjs_small_run_24509), (24592, mozjs_small_run_24592)]"

definition mozjs_small_table_172 :: "(nat \<times> nat list) list" where
  "mozjs_small_table_172 =
    [(24639, mozjs_small_run_24639), (24724, mozjs_small_run_24724)]"

definition mozjs_small_table_173 :: "(nat \<times> nat list) list" where
  "mozjs_small_table_173 =
    [(24775, mozjs_small_run_24775), (24866, mozjs_small_run_24866)]"

definition mozjs_small_table_174 :: "(nat \<times> nat list) list" where
  "mozjs_small_table_174 =
    [(24917, mozjs_small_run_24917), (24984, mozjs_small_run_24984), (25035,
      mozjs_small_run_25035)]"

definition mozjs_small_table_175 :: "(nat \<times> nat list) list" where
  "mozjs_small_table_175 =
    [(25086, mozjs_small_run_25086), (25133, mozjs_small_run_25133), (25212,
      mozjs_small_run_25212)]"

definition mozjs_small_table_176 :: "(nat \<times> nat list) list" where
  "mozjs_small_table_176 =
    [(25263, mozjs_small_run_25263), (25344, mozjs_small_run_25344), (25391,
      mozjs_small_run_25391)]"

definition mozjs_small_table_177 :: "(nat \<times> nat list) list" where
  "mozjs_small_table_177 =
    [(25438, mozjs_small_run_25438), (25485, mozjs_small_run_25485)]"

definition mozjs_small_table_178 :: "(nat \<times> nat list) list" where
  "mozjs_small_table_178 =
    [(25576, mozjs_small_run_25576), (25623, mozjs_small_run_25623), (25670,
      mozjs_small_run_25670)]"

definition mozjs_small_table_179 :: "(nat \<times> nat list) list" where
  "mozjs_small_table_179 =
    [(25717, mozjs_small_run_25717), (25764, mozjs_small_run_25764)]"

definition mozjs_small_table_180 :: "(nat \<times> nat list) list" where
  "mozjs_small_table_180 =
    [(25847, mozjs_small_run_25847), (25912, mozjs_small_run_25912)]"

definition mozjs_small_table_181 :: "(nat \<times> nat list) list" where
  "mozjs_small_table_181 =
    [(25973, mozjs_small_run_25973), (26048, mozjs_small_run_26048)]"

definition mozjs_small_table_182 :: "(nat \<times> nat list) list" where
  "mozjs_small_table_182 =
    [(26099, mozjs_small_run_26099), (26190, mozjs_small_run_26190)]"

definition mozjs_small_table_183 :: "(nat \<times> nat list) list" where
  "mozjs_small_table_183 =
    [(26277, mozjs_small_run_26277), (26324, mozjs_small_run_26324), (26371,
      mozjs_small_run_26371)]"

definition mozjs_small_table_184 :: "(nat \<times> nat list) list" where
  "mozjs_small_table_184 =
    [(26418, mozjs_small_run_26418), (26465, mozjs_small_run_26465), (26512,
      mozjs_small_run_26512)]"

definition mozjs_small_table_185 :: "(nat \<times> nat list) list" where
  "mozjs_small_table_185 =
    [(26559, mozjs_small_run_26559), (26606, mozjs_small_run_26606), (26653,
      mozjs_small_run_26653)]"

definition mozjs_small_table_186 :: "(nat \<times> nat list) list" where
  "mozjs_small_table_186 =
    [(26700, mozjs_small_run_26700), (26791, mozjs_small_run_26791)]"

definition mozjs_small_table_187 :: "(nat \<times> nat list) list" where
  "mozjs_small_table_187 =
    [(26838, mozjs_small_run_26838), (26887, mozjs_small_run_26887), (26934,
      mozjs_small_run_26934)]"

definition mozjs_small_table_188 :: "(nat \<times> nat list) list" where
  "mozjs_small_table_188 =
    [(26981, mozjs_small_run_26981), (27028, mozjs_small_run_27028), (27079,
      mozjs_small_run_27079)]"

definition mozjs_small_table_189 :: "(nat \<times> nat list) list" where
  "mozjs_small_table_189 =
    [(27126, mozjs_small_run_27126), (27173, mozjs_small_run_27173), (27220,
      mozjs_small_run_27220)]"

definition mozjs_small_table_190 :: "(nat \<times> nat list) list" where
  "mozjs_small_table_190 =
    [(27267, mozjs_small_run_27267), (27314, mozjs_small_run_27314)]"

definition mozjs_small_table_191 :: "(nat \<times> nat list) list" where
  "mozjs_small_table_191 =
    [(27405, mozjs_small_run_27405), (27452, mozjs_small_run_27452), (27503,
      mozjs_small_run_27503)]"

definition mozjs_small_table_192 :: "(nat \<times> nat list) list" where
  "mozjs_small_table_192 =
    [(27550, mozjs_small_run_27550), (27641, mozjs_small_run_27641)]"

definition mozjs_small_table_193 :: "(nat \<times> nat list) list" where
  "mozjs_small_table_193 =
    [(27692, mozjs_small_run_27692), (27783, mozjs_small_run_27783)]"

definition mozjs_small_table_194 :: "(nat \<times> nat list) list" where
  "mozjs_small_table_194 =
    [(27832, mozjs_small_run_27832), (27879, mozjs_small_run_27879), (27931,
      mozjs_small_run_27931)]"

definition mozjs_small_table_195 :: "(nat \<times> nat list) list" where
  "mozjs_small_table_195 =
    [(27981, mozjs_small_run_27981), (28033, mozjs_small_run_28033)]"

definition mozjs_small_table_196 :: "(nat \<times> nat list) list" where
  "mozjs_small_table_196 =
    [(28123, mozjs_small_run_28123), (28217, mozjs_small_run_28217)]"

definition mozjs_small_table_197 :: "(nat \<times> nat list) list" where
  "mozjs_small_table_197 =
    [(28311, mozjs_small_run_28311), (28405, mozjs_small_run_28405)]"

definition mozjs_small_table_198 :: "(nat \<times> nat list) list" where
  "mozjs_small_table_198 =
    [(28455, mozjs_small_run_28455), (28507, mozjs_small_run_28507)]"

definition mozjs_small_table_199 :: "(nat \<times> nat list) list" where
  "mozjs_small_table_199 =
    [(28599, mozjs_small_run_28599), (28649, mozjs_small_run_28649)]"

definition mozjs_small_table_200 :: "(nat \<times> nat list) list" where
  "mozjs_small_table_200 =
    [(28739, mozjs_small_run_28739), (28833, mozjs_small_run_28833)]"

definition mozjs_small_table_201 :: "(nat \<times> nat list) list" where
  "mozjs_small_table_201 =
    [(28927, mozjs_small_run_28927), (28979, mozjs_small_run_28979)]"

definition mozjs_small_table_202 :: "(nat \<times> nat list) list" where
  "mozjs_small_table_202 =
    [(29073, mozjs_small_run_29073), (29160, mozjs_small_run_29160)]"

definition mozjs_small_table_203 :: "(nat \<times> nat list) list" where
  "mozjs_small_table_203 =
    [(29253, mozjs_small_run_29253), (29346, mozjs_small_run_29346)]"

definition mozjs_small_table_204 :: "(nat \<times> nat list) list" where
  "mozjs_small_table_204 =
    [(29439, mozjs_small_run_29439), (29532, mozjs_small_run_29532)]"

definition mozjs_small_table_205 :: "(nat \<times> nat list) list" where
  "mozjs_small_table_205 =
    [(29625, mozjs_small_run_29625), (29718, mozjs_small_run_29718)]"

definition mozjs_small_table_206 :: "(nat \<times> nat list) list" where
  "mozjs_small_table_206 =
    [(29811, mozjs_small_run_29811), (29904, mozjs_small_run_29904)]"

definition mozjs_small_table_207 :: "(nat \<times> nat list) list" where
  "mozjs_small_table_207 =
    [(29997, mozjs_small_run_29997), (30090, mozjs_small_run_30090)]"

definition mozjs_small_table_208 :: "(nat \<times> nat list) list" where
  "mozjs_small_table_208 =
    [(30183, mozjs_small_run_30183), (30276, mozjs_small_run_30276)]"

definition mozjs_small_table_209 :: "(nat \<times> nat list) list" where
  "mozjs_small_table_209 =
    [(30369, mozjs_small_run_30369), (30462, mozjs_small_run_30462)]"

definition mozjs_small_table_210 :: "(nat \<times> nat list) list" where
  "mozjs_small_table_210 =
    [(30555, mozjs_small_run_30555), (30644, mozjs_small_run_30644)]"

definition mozjs_small_table_211 :: "(nat \<times> nat list) list" where
  "mozjs_small_table_211 =
    [(30737, mozjs_small_run_30737), (30830, mozjs_small_run_30830)]"

definition mozjs_small_table_212 :: "(nat \<times> nat list) list" where
  "mozjs_small_table_212 =
    [(30919, mozjs_small_run_30919), (31012, mozjs_small_run_31012)]"

definition mozjs_small_table_213 :: "(nat \<times> nat list) list" where
  "mozjs_small_table_213 =
    [(31105, mozjs_small_run_31105), (31156, mozjs_small_run_31156)]"

definition mozjs_small_table_214 :: "(nat \<times> nat list) list" where
  "mozjs_small_table_214 =
    [(31245, mozjs_small_run_31245), (31296, mozjs_small_run_31296), (31347,
      mozjs_small_run_31347)]"

definition mozjs_small_table_215 :: "(nat \<times> nat list) list" where
  "mozjs_small_table_215 =
    [(31398, mozjs_small_run_31398), (31485, mozjs_small_run_31485)]"

definition mozjs_small_table_216 :: "(nat \<times> nat list) list" where
  "mozjs_small_table_216 =
    [(31578, mozjs_small_run_31578), (31671, mozjs_small_run_31671)]"

definition mozjs_small_table_217 :: "(nat \<times> nat list) list" where
  "mozjs_small_table_217 =
    [(31764, mozjs_small_run_31764), (31857, mozjs_small_run_31857)]"

definition mozjs_small_table_218 :: "(nat \<times> nat list) list" where
  "mozjs_small_table_218 =
    [(31950, mozjs_small_run_31950), (32043, mozjs_small_run_32043)]"

definition mozjs_small_table_219 :: "(nat \<times> nat list) list" where
  "mozjs_small_table_219 =
    [(32136, mozjs_small_run_32136), (32223, mozjs_small_run_32223)]"

definition mozjs_small_table_220 :: "(nat \<times> nat list) list" where
  "mozjs_small_table_220 =
    [(32316, mozjs_small_run_32316), (32409, mozjs_small_run_32409)]"

definition mozjs_small_table_221 :: "(nat \<times> nat list) list" where
  "mozjs_small_table_221 =
    [(32496, mozjs_small_run_32496), (32589, mozjs_small_run_32589)]"

definition mozjs_small_table_222 :: "(nat \<times> nat list) list" where
  "mozjs_small_table_222 =
    [(32676, mozjs_small_run_32676), (32769, mozjs_small_run_32769)]"

definition mozjs_small_table_223 :: "(nat \<times> nat list) list" where
  "mozjs_small_table_223 =
    [(32856, mozjs_small_run_32856), (32949, mozjs_small_run_32949)]"

definition mozjs_small_table_224 :: "(nat \<times> nat list) list" where
  "mozjs_small_table_224 =
    [(33042, mozjs_small_run_33042), (33135, mozjs_small_run_33135)]"

definition mozjs_small_table_225 :: "(nat \<times> nat list) list" where
  "mozjs_small_table_225 =
    [(33228, mozjs_small_run_33228), (33321, mozjs_small_run_33321)]"

definition mozjs_small_table_226 :: "(nat \<times> nat list) list" where
  "mozjs_small_table_226 =
    [(33414, mozjs_small_run_33414), (33507, mozjs_small_run_33507)]"

definition mozjs_small_table_227 :: "(nat \<times> nat list) list" where
  "mozjs_small_table_227 =
    [(33600, mozjs_small_run_33600), (33693, mozjs_small_run_33693)]"

definition mozjs_small_table_228 :: "(nat \<times> nat list) list" where
  "mozjs_small_table_228 =
    [(33786, mozjs_small_run_33786), (33879, mozjs_small_run_33879)]"

definition mozjs_small_table_229 :: "(nat \<times> nat list) list" where
  "mozjs_small_table_229 =
    [(33972, mozjs_small_run_33972), (34065, mozjs_small_run_34065)]"

definition mozjs_small_table_230 :: "(nat \<times> nat list) list" where
  "mozjs_small_table_230 =
    [(34158, mozjs_small_run_34158), (34251, mozjs_small_run_34251)]"

definition mozjs_small_table_231 :: "(nat \<times> nat list) list" where
  "mozjs_small_table_231 =
    [(34344, mozjs_small_run_34344), (34432, mozjs_small_run_34432)]"

definition mozjs_small_table_232 :: "(nat \<times> nat list) list" where
  "mozjs_small_table_232 =
    [(34510, mozjs_small_run_34510), (34590, mozjs_small_run_34590)]"

definition mozjs_small_table_233 :: "(nat \<times> nat list) list" where
  "mozjs_small_table_233 =
    [(34652, mozjs_small_run_34652), (34710, mozjs_small_run_34710)]"

definition mozjs_small_table_234 :: "(nat \<times> nat list) list" where
  "mozjs_small_table_234 =
    [(34782, mozjs_small_run_34782), (34866, mozjs_small_run_34866)]"

definition mozjs_small_table_235 :: "(nat \<times> nat list) list" where
  "mozjs_small_table_235 =
    [(34954, mozjs_small_run_34954), (35042, mozjs_small_run_35042)]"

definition mozjs_small_table_236 :: "(nat \<times> nat list) list" where
  "mozjs_small_table_236 =
    [(35130, mozjs_small_run_35130), (35218, mozjs_small_run_35218)]"

definition mozjs_small_table_237 :: "(nat \<times> nat list) list" where
  "mozjs_small_table_237 =
    [(35306, mozjs_small_run_35306), (35394, mozjs_small_run_35394)]"

definition mozjs_small_table_238 :: "(nat \<times> nat list) list" where
  "mozjs_small_table_238 =
    [(35482, mozjs_small_run_35482), (35570, mozjs_small_run_35570)]"

definition mozjs_small_table_239 :: "(nat \<times> nat list) list" where
  "mozjs_small_table_239 =
    [(35616, mozjs_small_run_35616), (35706, mozjs_small_run_35706)]"

definition mozjs_small_table_240 :: "(nat \<times> nat list) list" where
  "mozjs_small_table_240 =
    [(35794, mozjs_small_run_35794), (35882, mozjs_small_run_35882)]"

definition mozjs_small_table_241 :: "(nat \<times> nat list) list" where
  "mozjs_small_table_241 =
    [(35970, mozjs_small_run_35970), (36016, mozjs_small_run_36016)]"

definition mozjs_small_table_242 :: "(nat \<times> nat list) list" where
  "mozjs_small_table_242 =
    [(36104, mozjs_small_run_36104), (36192, mozjs_small_run_36192)]"

definition mozjs_small_table_243 :: "(nat \<times> nat list) list" where
  "mozjs_small_table_243 =
    [(36280, mozjs_small_run_36280), (36368, mozjs_small_run_36368)]"

definition mozjs_small_table_244 :: "(nat \<times> nat list) list" where
  "mozjs_small_table_244 =
    [(36456, mozjs_small_run_36456), (36544, mozjs_small_run_36544)]"

definition mozjs_small_table_245 :: "(nat \<times> nat list) list" where
  "mozjs_small_table_245 =
    [(36632, mozjs_small_run_36632), (36720, mozjs_small_run_36720)]"

definition mozjs_small_table_246 :: "(nat \<times> nat list) list" where
  "mozjs_small_table_246 =
    [(36808, mozjs_small_run_36808), (36876, mozjs_small_run_36876)]"

definition mozjs_small_table_247 :: "(nat \<times> nat list) list" where
  "mozjs_small_table_247 =
    [(36934, mozjs_small_run_36934), (37014, mozjs_small_run_37014)]"

definition mozjs_small_table_248 :: "(nat \<times> nat list) list" where
  "mozjs_small_table_248 =
    [(37096, mozjs_small_run_37096), (37160, mozjs_small_run_37160)]"

definition mozjs_small_table_249 :: "(nat \<times> nat list) list" where
  "mozjs_small_table_249 =
    [(37236, mozjs_small_run_37236), (37314, mozjs_small_run_37314)]"

definition mozjs_small_table_250 :: "(nat \<times> nat list) list" where
  "mozjs_small_table_250 =
    [(37390, mozjs_small_run_37390), (37452, mozjs_small_run_37452)]"

definition mozjs_small_table_251 :: "(nat \<times> nat list) list" where
  "mozjs_small_table_251 =
    [(37510, mozjs_small_run_37510), (37582, mozjs_small_run_37582)]"

definition mozjs_small_table_252 :: "(nat \<times> nat list) list" where
  "mozjs_small_table_252 =
    [(37666, mozjs_small_run_37666), (37754, mozjs_small_run_37754)]"

definition mozjs_small_table_253 :: "(nat \<times> nat list) list" where
  "mozjs_small_table_253 =
    [(37842, mozjs_small_run_37842), (37930, mozjs_small_run_37930)]"

definition mozjs_small_table_254 :: "(nat \<times> nat list) list" where
  "mozjs_small_table_254 =
    [(38018, mozjs_small_run_38018), (38106, mozjs_small_run_38106)]"

definition mozjs_small_table_255 :: "(nat \<times> nat list) list" where
  "mozjs_small_table_255 =
    [(38194, mozjs_small_run_38194), (38282, mozjs_small_run_38282)]"

definition mozjs_small_table_256 :: "(nat \<times> nat list) list" where
  "mozjs_small_table_256 =
    [(38350, mozjs_small_run_38350), (38438, mozjs_small_run_38438)]"

definition mozjs_small_table_257 :: "(nat \<times> nat list) list" where
  "mozjs_small_table_257 =
    [(38526, mozjs_small_run_38526), (38614, mozjs_small_run_38614)]"

definition mozjs_small_table_258 :: "(nat \<times> nat list) list" where
  "mozjs_small_table_258 =
    [(38702, mozjs_small_run_38702), (38790, mozjs_small_run_38790)]"

definition mozjs_small_table_259 :: "(nat \<times> nat list) list" where
  "mozjs_small_table_259 =
    [(38858, mozjs_small_run_38858), (38916, mozjs_small_run_38916)]"

definition mozjs_small_table_260 :: "(nat \<times> nat list) list" where
  "mozjs_small_table_260 =
    [(38996, mozjs_small_run_38996), (39078, mozjs_small_run_39078)]"

definition mozjs_small_table_261 :: "(nat \<times> nat list) list" where
  "mozjs_small_table_261 =
    [(39142, mozjs_small_run_39142), (39218, mozjs_small_run_39218)]"

definition mozjs_small_table_262 :: "(nat \<times> nat list) list" where
  "mozjs_small_table_262 =
    [(39296, mozjs_small_run_39296), (39376, mozjs_small_run_39376)]"

definition mozjs_small_table_263 :: "(nat \<times> nat list) list" where
  "mozjs_small_table_263 =
    [(39438, mozjs_small_run_39438), (39496, mozjs_small_run_39496)]"

definition mozjs_small_table_264 :: "(nat \<times> nat list) list" where
  "mozjs_small_table_264 =
    [(39568, mozjs_small_run_39568), (39652, mozjs_small_run_39652)]"

definition mozjs_small_table_265 :: "(nat \<times> nat list) list" where
  "mozjs_small_table_265 =
    [(39740, mozjs_small_run_39740), (39828, mozjs_small_run_39828)]"

definition mozjs_small_table_266 :: "(nat \<times> nat list) list" where
  "mozjs_small_table_266 =
    [(39916, mozjs_small_run_39916), (39974, mozjs_small_run_39974)]"

definition mozjs_small_table_267 :: "(nat \<times> nat list) list" where
  "mozjs_small_table_267 =
    [(40062, mozjs_small_run_40062), (40150, mozjs_small_run_40150)]"

definition mozjs_small_table_268 :: "(nat \<times> nat list) list" where
  "mozjs_small_table_268 =
    [(40200, mozjs_small_run_40200), (40280, mozjs_small_run_40280)]"

definition mozjs_small_table_269 :: "(nat \<times> nat list) list" where
  "mozjs_small_table_269 =
    [(40362, mozjs_small_run_40362), (40450, mozjs_small_run_40450)]"

definition mozjs_small_table_270 :: "(nat \<times> nat list) list" where
  "mozjs_small_table_270 =
    [(40496, mozjs_small_run_40496), (40584, mozjs_small_run_40584)]"

definition mozjs_small_table_271 :: "(nat \<times> nat list) list" where
  "mozjs_small_table_271 =
    [(40648, mozjs_small_run_40648), (40728, mozjs_small_run_40728)]"

definition mozjs_small_table_272 :: "(nat \<times> nat list) list" where
  "mozjs_small_table_272 =
    [(40815, mozjs_small_run_40815), (40902, mozjs_small_run_40902)]"

definition mozjs_small_table_273 :: "(nat \<times> nat list) list" where
  "mozjs_small_table_273 =
    [(40991, mozjs_small_run_40991), (41070, mozjs_small_run_41070)]"

definition mozjs_small_table_274 :: "(nat \<times> nat list) list" where
  "mozjs_small_table_274 =
    [(41157, mozjs_small_run_41157), (41244, mozjs_small_run_41244)]"

definition mozjs_small_table_275 :: "(nat \<times> nat list) list" where
  "mozjs_small_table_275 =
    [(41331, mozjs_small_run_41331), (41418, mozjs_small_run_41418)]"

definition mozjs_small_table_276 :: "(nat \<times> nat list) list" where
  "mozjs_small_table_276 =
    [(41505, mozjs_small_run_41505), (41592, mozjs_small_run_41592)]"

definition mozjs_small_table_277 :: "(nat \<times> nat list) list" where
  "mozjs_small_table_277 =
    [(41679, mozjs_small_run_41679), (41763, mozjs_small_run_41763)]"

definition mozjs_small_table_278 :: "(nat \<times> nat list) list" where
  "mozjs_small_table_278 =
    [(41847, mozjs_small_run_41847), (41918, mozjs_small_run_41918)]"

definition mozjs_small_table_279 :: "(nat \<times> nat list) list" where
  "mozjs_small_table_279 =
    [(41990, mozjs_small_run_41990), (42062, mozjs_small_run_42062), (42120,
      mozjs_small_run_42120)]"

definition mozjs_small_table_280 :: "(nat \<times> nat list) list" where
  "mozjs_small_table_280 =
    [(42192, mozjs_small_run_42192), (42264, mozjs_small_run_42264)]"

definition mozjs_small_table_281 :: "(nat \<times> nat list) list" where
  "mozjs_small_table_281 =
    [(42336, mozjs_small_run_42336), (42408, mozjs_small_run_42408), (42480,
      mozjs_small_run_42480)]"

definition mozjs_small_table_282 :: "(nat \<times> nat list) list" where
  "mozjs_small_table_282 =
    [(42538, mozjs_small_run_42538), (42604, mozjs_small_run_42604), (42657,
      mozjs_small_run_42657)]"

definition mozjs_small_table_283 :: "(nat \<times> nat list) list" where
  "mozjs_small_table_283 =
    [(42714, mozjs_small_run_42714), (42771, mozjs_small_run_42771), (42830,
      mozjs_small_run_42830)]"

definition mozjs_small_table_284 :: "(nat \<times> nat list) list" where
  "mozjs_small_table_284 =
    [(42887, mozjs_small_run_42887), (42946, mozjs_small_run_42946), (43003,
      mozjs_small_run_43003)]"

definition mozjs_small_table_285 :: "(nat \<times> nat list) list" where
  "mozjs_small_table_285 =
    [(43062, mozjs_small_run_43062), (43119, mozjs_small_run_43119), (43178,
      mozjs_small_run_43178)]"

definition mozjs_small_table_286 :: "(nat \<times> nat list) list" where
  "mozjs_small_table_286 =
    [(43235, mozjs_small_run_43235), (43294, mozjs_small_run_43294), (43353,
      mozjs_small_run_43353)]"

definition mozjs_small_table_287 :: "(nat \<times> nat list) list" where
  "mozjs_small_table_287 =
    [(43405, mozjs_small_run_43405), (43457, mozjs_small_run_43457), (43509,
      mozjs_small_run_43509)]"

definition mozjs_small_table_288 :: "(nat \<times> nat list) list" where
  "mozjs_small_table_288 =
    [(43563, mozjs_small_run_43563), (43615, mozjs_small_run_43615), (43667,
      mozjs_small_run_43667)]"

definition mozjs_small_table_289 :: "(nat \<times> nat list) list" where
  "mozjs_small_table_289 =
    [(43719, mozjs_small_run_43719), (43772, mozjs_small_run_43772), (43823,
      mozjs_small_run_43823)]"

definition mozjs_small_table_290 :: "(nat \<times> nat list) list" where
  "mozjs_small_table_290 =
    [(43874, mozjs_small_run_43874), (43923, mozjs_small_run_43923), (43984,
      mozjs_small_run_43984)]"

definition mozjs_small_table_291 :: "(nat \<times> nat list) list" where
  "mozjs_small_table_291 =
    [(44030, mozjs_small_run_44030), (44086, mozjs_small_run_44086), (44134,
      mozjs_small_run_44134),
     (44178, mozjs_small_run_44178)]"

definition mozjs_small_table_292 :: "(nat \<times> nat list) list" where
  "mozjs_small_table_292 =
    [(44224, mozjs_small_run_44224), (44270, mozjs_small_run_44270), (44316,
      mozjs_small_run_44316),
     (44360, mozjs_small_run_44360)]"

definition mozjs_small_table_293 :: "(nat \<times> nat list) list" where
  "mozjs_small_table_293 =
    [(44416, mozjs_small_run_44416), (44464, mozjs_small_run_44464), (44508,
      mozjs_small_run_44508),
     (44547, mozjs_small_run_44547)]"

definition mozjs_small_table_294 :: "(nat \<times> nat list) list" where
  "mozjs_small_table_294 =
    [(44582, mozjs_small_run_44582), (44621, mozjs_small_run_44621), (44660,
      mozjs_small_run_44660),
     (44699, mozjs_small_run_44699)]"

definition mozjs_small_table_295 :: "(nat \<times> nat list) list" where
  "mozjs_small_table_295 =
    [(44740, mozjs_small_run_44740), (44793, mozjs_small_run_44793), (44832,
      mozjs_small_run_44832),
     (44871, mozjs_small_run_44871), (44899, mozjs_small_run_44899)]"

definition mozjs_small_table_296 :: "(nat \<times> nat list) list" where
  "mozjs_small_table_296 =
    [(44927, mozjs_small_run_44927), (44955, mozjs_small_run_44955), (45005,
      mozjs_small_run_45005),
     (45033, mozjs_small_run_45033), (45061, mozjs_small_run_45061)]"

definition mozjs_small_table_297 :: "(nat \<times> nat list) list" where
  "mozjs_small_table_297 =
    [(45089, mozjs_small_run_45089), (45117, mozjs_small_run_45117), (45151,
      mozjs_small_run_45151),
     (45179, mozjs_small_run_45179), (45209, mozjs_small_run_45209)]"

definition mozjs_small_table_298 :: "(nat \<times> nat list) list" where
  "mozjs_small_table_298 =
    [(45237, mozjs_small_run_45237), (45265, mozjs_small_run_45265), (45293,
      mozjs_small_run_45293),
     (45321, mozjs_small_run_45321), (45351, mozjs_small_run_45351)]"

definition mozjs_small_table_299 :: "(nat \<times> nat list) list" where
  "mozjs_small_table_299 =
    [(45379, mozjs_small_run_45379), (45407, mozjs_small_run_45407), (45435,
      mozjs_small_run_45435),
     (45463, mozjs_small_run_45463), (45491, mozjs_small_run_45491)]"

definition mozjs_small_table_300 :: "(nat \<times> nat list) list" where
  "mozjs_small_table_300 =
    [(45541, mozjs_small_run_45541), (45569, mozjs_small_run_45569), (45597,
      mozjs_small_run_45597),
     (45625, mozjs_small_run_45625), (45653, mozjs_small_run_45653), (45681,
       mozjs_small_run_45681)]"

definition mozjs_small_table_301 :: "(nat \<times> nat list) list" where
  "mozjs_small_table_301 =
    [(45709, mozjs_small_run_45709), (45737, mozjs_small_run_45737), (45765,
      mozjs_small_run_45765),
     (45793, mozjs_small_run_45793), (45821, mozjs_small_run_45821), (45849,
       mozjs_small_run_45849)]"

definition mozjs_small_table_302 :: "(nat \<times> nat list) list" where
  "mozjs_small_table_302 =
    [(45877, mozjs_small_run_45877), (45920, mozjs_small_run_45920), (45947,
      mozjs_small_run_45947),
     (45988, mozjs_small_run_45988), (46029, mozjs_small_run_46029)]"

definition mozjs_small_table_303 :: "(nat \<times> nat list) list" where
  "mozjs_small_table_303 =
    [(46056, mozjs_small_run_46056), (46099, mozjs_small_run_46099), (46142,
      mozjs_small_run_46142),
     (46187, mozjs_small_run_46187), (46214, mozjs_small_run_46214)]"

definition mozjs_small_table_304 :: "(nat \<times> nat list) list" where
  "mozjs_small_table_304 =
    [(46241, mozjs_small_run_46241), (46284, mozjs_small_run_46284), (46311,
      mozjs_small_run_46311),
     (46338, mozjs_small_run_46338), (46367, mozjs_small_run_46367)]"

definition mozjs_small_table_305 :: "(nat \<times> nat list) list" where
  "mozjs_small_table_305 =
    [(46406, mozjs_small_run_46406), (46442, mozjs_small_run_46442), (46478,
      mozjs_small_run_46478),
     (46514, mozjs_small_run_46514), (46550, mozjs_small_run_46550)]"

definition mozjs_small_table_306 :: "(nat \<times> nat list) list" where
  "mozjs_small_table_306 =
    [(46586, mozjs_small_run_46586), (46612, mozjs_small_run_46612), (46648,
      mozjs_small_run_46648),
     (46684, mozjs_small_run_46684), (46720, mozjs_small_run_46720)]"

definition mozjs_small_table_307 :: "(nat \<times> nat list) list" where
  "mozjs_small_table_307 =
    [(46756, mozjs_small_run_46756), (46792, mozjs_small_run_46792), (46828,
      mozjs_small_run_46828),
     (46870, mozjs_small_run_46870), (46906, mozjs_small_run_46906)]"

definition mozjs_small_table_308 :: "(nat \<times> nat list) list" where
  "mozjs_small_table_308 =
    [(46942, mozjs_small_run_46942), (46978, mozjs_small_run_46978), (47018,
      mozjs_small_run_47018),
     (47044, mozjs_small_run_47044), (47070, mozjs_small_run_47070), (47096,
       mozjs_small_run_47096)]"

definition mozjs_small_table_309 :: "(nat \<times> nat list) list" where
  "mozjs_small_table_309 =
    [(47122, mozjs_small_run_47122), (47148, mozjs_small_run_47148), (47188,
      mozjs_small_run_47188),
     (47224, mozjs_small_run_47224), (47266, mozjs_small_run_47266)]"

definition mozjs_small_table_310 :: "(nat \<times> nat list) list" where
  "mozjs_small_table_310 =
    [(47302, mozjs_small_run_47302), (47338, mozjs_small_run_47338), (47374,
      mozjs_small_run_47374),
     (47410, mozjs_small_run_47410), (47446, mozjs_small_run_47446)]"

definition mozjs_small_table_311 :: "(nat \<times> nat list) list" where
  "mozjs_small_table_311 =
    [(47482, mozjs_small_run_47482), (47518, mozjs_small_run_47518), (47554,
      mozjs_small_run_47554),
     (47590, mozjs_small_run_47590), (47623, mozjs_small_run_47623)]"

definition mozjs_small_table_312 :: "(nat \<times> nat list) list" where
  "mozjs_small_table_312 =
    [(47656, mozjs_small_run_47656), (47689, mozjs_small_run_47689), (47722,
      mozjs_small_run_47722),
     (47755, mozjs_small_run_47755), (47788, mozjs_small_run_47788)]"

definition mozjs_small_table_313 :: "(nat \<times> nat list) list" where
  "mozjs_small_table_313 =
    [(47821, mozjs_small_run_47821), (47854, mozjs_small_run_47854), (47887,
      mozjs_small_run_47887),
     (47920, mozjs_small_run_47920), (47953, mozjs_small_run_47953)]"

definition mozjs_small_table_314 :: "(nat \<times> nat list) list" where
  "mozjs_small_table_314 =
    [(47986, mozjs_small_run_47986), (48019, mozjs_small_run_48019), (48052,
      mozjs_small_run_48052),
     (48085, mozjs_small_run_48085), (48118, mozjs_small_run_48118)]"

definition mozjs_small_table_315 :: "(nat \<times> nat list) list" where
  "mozjs_small_table_315 =
    [(48151, mozjs_small_run_48151), (48184, mozjs_small_run_48184), (48206,
      mozjs_small_run_48206),
     (48228, mozjs_small_run_48228), (48250, mozjs_small_run_48250), (48272,
       mozjs_small_run_48272),
     (48294, mozjs_small_run_48294)]"

definition mozjs_small_table_316 :: "(nat \<times> nat list) list" where
  "mozjs_small_table_316 =
    [(48316, mozjs_small_run_48316), (48353, mozjs_small_run_48353), (48389,
      mozjs_small_run_48389),
     (48425, mozjs_small_run_48425), (48455, mozjs_small_run_48455), (48485,
       mozjs_small_run_48485)]"

definition mozjs_small_table_317 :: "(nat \<times> nat list) list" where
  "mozjs_small_table_317 =
    [(48515, mozjs_small_run_48515), (48551, mozjs_small_run_48551), (48581,
      mozjs_small_run_48581),
     (48611, mozjs_small_run_48611), (48641, mozjs_small_run_48641), (48677,
       mozjs_small_run_48677)]"

definition mozjs_small_table_318 :: "(nat \<times> nat list) list" where
  "mozjs_small_table_318 =
    [(48707, mozjs_small_run_48707), (48737, mozjs_small_run_48737), (48770,
      mozjs_small_run_48770),
     (48803, mozjs_small_run_48803), (48836, mozjs_small_run_48836), (48869,
       mozjs_small_run_48869)]"

definition mozjs_small_table_319 :: "(nat \<times> nat list) list" where
  "mozjs_small_table_319 =
    [(48902, mozjs_small_run_48902), (48929, mozjs_small_run_48929), (48962,
      mozjs_small_run_48962),
     (48995, mozjs_small_run_48995), (49028, mozjs_small_run_49028), (49058,
       mozjs_small_run_49058)]"

definition mozjs_small_table_320 :: "(nat \<times> nat list) list" where
  "mozjs_small_table_320 =
    [(49086, mozjs_small_run_49086), (49116, mozjs_small_run_49116), (49146,
      mozjs_small_run_49146),
     (49176, mozjs_small_run_49176), (49206, mozjs_small_run_49206), (49236,
       mozjs_small_run_49236),
     (49266, mozjs_small_run_49266)]"

definition mozjs_small_table_321 :: "(nat \<times> nat list) list" where
  "mozjs_small_table_321 =
    [(49292, mozjs_small_run_49292), (49322, mozjs_small_run_49322), (49352,
      mozjs_small_run_49352),
     (49382, mozjs_small_run_49382), (49410, mozjs_small_run_49410), (49440,
       mozjs_small_run_49440),
     (49470, mozjs_small_run_49470)]"

definition mozjs_small_table_322 :: "(nat \<times> nat list) list" where
  "mozjs_small_table_322 =
    [(49500, mozjs_small_run_49500), (49530, mozjs_small_run_49530), (49560,
      mozjs_small_run_49560),
     (49590, mozjs_small_run_49590), (49620, mozjs_small_run_49620), (49650,
       mozjs_small_run_49650),
     (49680, mozjs_small_run_49680)]"

definition mozjs_small_table_323 :: "(nat \<times> nat list) list" where
  "mozjs_small_table_323 =
    [(49710, mozjs_small_run_49710), (49736, mozjs_small_run_49736), (49766,
      mozjs_small_run_49766),
     (49791, mozjs_small_run_49791), (49818, mozjs_small_run_49818), (49843,
       mozjs_small_run_49843),
     (49868, mozjs_small_run_49868), (49893, mozjs_small_run_49893)]"

definition mozjs_small_table_324 :: "(nat \<times> nat list) list" where
  "mozjs_small_table_324 =
    [(49918, mozjs_small_run_49918), (49943, mozjs_small_run_49943), (49968,
      mozjs_small_run_49968),
     (49995, mozjs_small_run_49995), (50020, mozjs_small_run_50020), (50045,
       mozjs_small_run_50045),
     (50067, mozjs_small_run_50067), (50085, mozjs_small_run_50085)]"

definition mozjs_small_table_325 :: "(nat \<times> nat list) list" where
  "mozjs_small_table_325 =
    [(50109, mozjs_small_run_50109), (50131, mozjs_small_run_50131), (50153,
      mozjs_small_run_50153),
     (50175, mozjs_small_run_50175), (50189, mozjs_small_run_50189), (50209,
       mozjs_small_run_50209),
     (50229, mozjs_small_run_50229), (50243, mozjs_small_run_50243), (50257,
       mozjs_small_run_50257),
     (50277, mozjs_small_run_50277)]"

definition mozjs_small_table_326 :: "(nat \<times> nat list) list" where
  "mozjs_small_table_326 =
    [(50301, mozjs_small_run_50301), (50323, mozjs_small_run_50323), (50345,
      mozjs_small_run_50345),
     (50363, mozjs_small_run_50363), (50387, mozjs_small_run_50387), (50401,
       mozjs_small_run_50401),
     (50425, mozjs_small_run_50425), (50449, mozjs_small_run_50449), (50473,
       mozjs_small_run_50473)]"

definition mozjs_small_table_327 :: "(nat \<times> nat list) list" where
  "mozjs_small_table_327 =
    [(50487, mozjs_small_run_50487), (50511, mozjs_small_run_50511), (50532,
      mozjs_small_run_50532),
     (50549, mozjs_small_run_50549), (50568, mozjs_small_run_50568), (50581,
       mozjs_small_run_50581),
     (50600, mozjs_small_run_50600), (50621, mozjs_small_run_50621), (50640,
       mozjs_small_run_50640),
     (50659, mozjs_small_run_50659)]"

definition mozjs_small_table_328 :: "(nat \<times> nat list) list" where
  "mozjs_small_table_328 =
    [(50678, mozjs_small_run_50678), (50691, mozjs_small_run_50691), (50706,
      mozjs_small_run_50706),
     (50721, mozjs_small_run_50721), (50740, mozjs_small_run_50740), (50753,
       mozjs_small_run_50753),
     (50772, mozjs_small_run_50772), (50793, mozjs_small_run_50793), (50814,
       mozjs_small_run_50814),
     (50827, mozjs_small_run_50827), (50840, mozjs_small_run_50840)]"

definition mozjs_small_table_329 :: "(nat \<times> nat list) list" where
  "mozjs_small_table_329 =
    [(50853, mozjs_small_run_50853), (50872, mozjs_small_run_50872), (50885,
      mozjs_small_run_50885),
     (50904, mozjs_small_run_50904), (50923, mozjs_small_run_50923), (50936,
       mozjs_small_run_50936),
     (50955, mozjs_small_run_50955), (50968, mozjs_small_run_50968), (50981,
       mozjs_small_run_50981),
     (51001, mozjs_small_run_51001), (51021, mozjs_small_run_51021)]"

definition mozjs_small_table_330 :: "(nat \<times> nat list) list" where
  "mozjs_small_table_330 =
    [(51035, mozjs_small_run_51035), (51055, mozjs_small_run_51055), (51069,
      mozjs_small_run_51069),
     (51083, mozjs_small_run_51083), (51097, mozjs_small_run_51097), (51117,
       mozjs_small_run_51117),
     (51129, mozjs_small_run_51129), (51143, mozjs_small_run_51143), (51159,
       mozjs_small_run_51159),
     (51173, mozjs_small_run_51173), (51193, mozjs_small_run_51193), (51207,
       mozjs_small_run_51207)]"

definition mozjs_small_table_331 :: "(nat \<times> nat list) list" where
  "mozjs_small_table_331 =
    [(51221, mozjs_small_run_51221), (51241, mozjs_small_run_51241), (51261,
      mozjs_small_run_51261),
     (51281, mozjs_small_run_51281), (51301, mozjs_small_run_51301), (51315,
       mozjs_small_run_51315),
     (51335, mozjs_small_run_51335), (51351, mozjs_small_run_51351), (51371,
       mozjs_small_run_51371),
     (51389, mozjs_small_run_51389), (51409, mozjs_small_run_51409)]"

definition mozjs_small_table_332 :: "(nat \<times> nat list) list" where
  "mozjs_small_table_332 =
    [(51425, mozjs_small_run_51425), (51445, mozjs_small_run_51445), (51459,
      mozjs_small_run_51459),
     (51479, mozjs_small_run_51479), (51493, mozjs_small_run_51493), (51509,
       mozjs_small_run_51509),
     (51525, mozjs_small_run_51525), (51545, mozjs_small_run_51545), (51565,
       mozjs_small_run_51565),
     (51579, mozjs_small_run_51579), (51593, mozjs_small_run_51593), (51605,
       mozjs_small_run_51605)]"

definition mozjs_small_table_333 :: "(nat \<times> nat list) list" where
  "mozjs_small_table_333 =
    [(51619, mozjs_small_run_51619), (51633, mozjs_small_run_51633), (51647,
      mozjs_small_run_51647),
     (51661, mozjs_small_run_51661), (51675, mozjs_small_run_51675), (51689,
       mozjs_small_run_51689),
     (51703, mozjs_small_run_51703), (51717, mozjs_small_run_51717), (51731,
       mozjs_small_run_51731),
     (51745, mozjs_small_run_51745), (51765, mozjs_small_run_51765), (51785,
       mozjs_small_run_51785)]"

definition mozjs_small_table_334 :: "(nat \<times> nat list) list" where
  "mozjs_small_table_334 =
    [(51799, mozjs_small_run_51799), (51819, mozjs_small_run_51819), (51833,
      mozjs_small_run_51833),
     (51847, mozjs_small_run_51847), (51861, mozjs_small_run_51861), (51881,
       mozjs_small_run_51881),
     (51895, mozjs_small_run_51895), (51909, mozjs_small_run_51909), (51923,
       mozjs_small_run_51923),
     (51937, mozjs_small_run_51937), (51951, mozjs_small_run_51951), (51965,
       mozjs_small_run_51965),
     (51979, mozjs_small_run_51979)]"

definition mozjs_small_table_335 :: "(nat \<times> nat list) list" where
  "mozjs_small_table_335 =
    [(51993, mozjs_small_run_51993), (52007, mozjs_small_run_52007), (52027,
      mozjs_small_run_52027),
     (52039, mozjs_small_run_52039), (52059, mozjs_small_run_52059), (52076,
       mozjs_small_run_52076),
     (52093, mozjs_small_run_52093), (52110, mozjs_small_run_52110), (52127,
       mozjs_small_run_52127),
     (52144, mozjs_small_run_52144), (52159, mozjs_small_run_52159), (52176,
       mozjs_small_run_52176)]"

definition mozjs_small_table_336 :: "(nat \<times> nat list) list" where
  "mozjs_small_table_336 =
    [(52193, mozjs_small_run_52193), (52210, mozjs_small_run_52210), (52225,
      mozjs_small_run_52225),
     (52242, mozjs_small_run_52242), (52257, mozjs_small_run_52257), (52272,
       mozjs_small_run_52272),
     (52289, mozjs_small_run_52289), (52304, mozjs_small_run_52304), (52321,
       mozjs_small_run_52321),
     (52338, mozjs_small_run_52338), (52355, mozjs_small_run_52355), (52372,
       mozjs_small_run_52372),
     (52387, mozjs_small_run_52387)]"

definition mozjs_small_table_337 :: "(nat \<times> nat list) list" where
  "mozjs_small_table_337 =
    [(52402, mozjs_small_run_52402), (52419, mozjs_small_run_52419), (52438,
      mozjs_small_run_52438),
     (52457, mozjs_small_run_52457), (52468, mozjs_small_run_52468), (52483,
       mozjs_small_run_52483),
     (52498, mozjs_small_run_52498), (52511, mozjs_small_run_52511), (52528,
       mozjs_small_run_52528),
     (52545, mozjs_small_run_52545), (52562, mozjs_small_run_52562), (52579,
       mozjs_small_run_52579)]"

definition mozjs_small_table_338 :: "(nat \<times> nat list) list" where
  "mozjs_small_table_338 =
    [(52598, mozjs_small_run_52598), (52617, mozjs_small_run_52617), (52636,
      mozjs_small_run_52636),
     (52653, mozjs_small_run_52653), (52670, mozjs_small_run_52670), (52685,
       mozjs_small_run_52685),
     (52702, mozjs_small_run_52702), (52719, mozjs_small_run_52719), (52736,
       mozjs_small_run_52736),
     (52751, mozjs_small_run_52751), (52766, mozjs_small_run_52766), (52785,
       mozjs_small_run_52785)]"

definition mozjs_small_table_339 :: "(nat \<times> nat list) list" where
  "mozjs_small_table_339 =
    [(52800, mozjs_small_run_52800), (52817, mozjs_small_run_52817), (52832,
      mozjs_small_run_52832),
     (52849, mozjs_small_run_52849), (52866, mozjs_small_run_52866), (52881,
       mozjs_small_run_52881),
     (52898, mozjs_small_run_52898), (52915, mozjs_small_run_52915), (52926,
       mozjs_small_run_52926),
     (52941, mozjs_small_run_52941), (52958, mozjs_small_run_52958), (52975,
       mozjs_small_run_52975),
     (52992, mozjs_small_run_52992)]"

definition mozjs_small_table_340 :: "(nat \<times> nat list) list" where
  "mozjs_small_table_340 =
    [(53009, mozjs_small_run_53009), (53026, mozjs_small_run_53026), (53041,
      mozjs_small_run_53041),
     (53058, mozjs_small_run_53058), (53075, mozjs_small_run_53075), (53086,
       mozjs_small_run_53086),
     (53097, mozjs_small_run_53097), (53108, mozjs_small_run_53108), (53125,
       mozjs_small_run_53125),
     (53140, mozjs_small_run_53140), (53157, mozjs_small_run_53157), (53172,
       mozjs_small_run_53172),
     (53189, mozjs_small_run_53189)]"

definition mozjs_small_table_341 :: "(nat \<times> nat list) list" where
  "mozjs_small_table_341 =
    [(53206, mozjs_small_run_53206), (53221, mozjs_small_run_53221), (53238,
      mozjs_small_run_53238),
     (53255, mozjs_small_run_53255), (53266, mozjs_small_run_53266), (53281,
       mozjs_small_run_53281),
     (53294, mozjs_small_run_53294), (53311, mozjs_small_run_53311), (53328,
       mozjs_small_run_53328),
     (53345, mozjs_small_run_53345), (53362, mozjs_small_run_53362), (53377,
       mozjs_small_run_53377),
     (53394, mozjs_small_run_53394)]"

definition mozjs_small_table_342 :: "(nat \<times> nat list) list" where
  "mozjs_small_table_342 =
    [(53408, mozjs_small_run_53408), (53420, mozjs_small_run_53420), (53434,
      mozjs_small_run_53434),
     (53448, mozjs_small_run_53448), (53462, mozjs_small_run_53462), (53476,
       mozjs_small_run_53476),
     (53490, mozjs_small_run_53490), (53504, mozjs_small_run_53504), (53518,
       mozjs_small_run_53518),
     (53530, mozjs_small_run_53530), (53544, mozjs_small_run_53544), (53558,
       mozjs_small_run_53558),
     (53572, mozjs_small_run_53572), (53584, mozjs_small_run_53584), (53598,
       mozjs_small_run_53598)]"

definition mozjs_small_table_343 :: "(nat \<times> nat list) list" where
  "mozjs_small_table_343 =
    [(53612, mozjs_small_run_53612), (53626, mozjs_small_run_53626), (53640,
      mozjs_small_run_53640),
     (53654, mozjs_small_run_53654), (53668, mozjs_small_run_53668), (53682,
       mozjs_small_run_53682),
     (53696, mozjs_small_run_53696), (53710, mozjs_small_run_53710), (53724,
       mozjs_small_run_53724),
     (53738, mozjs_small_run_53738), (53752, mozjs_small_run_53752), (53766,
       mozjs_small_run_53766),
     (53780, mozjs_small_run_53780), (53794, mozjs_small_run_53794), (53808,
       mozjs_small_run_53808)]"

definition mozjs_small_table_344 :: "(nat \<times> nat list) list" where
  "mozjs_small_table_344 =
    [(53822, mozjs_small_run_53822), (53836, mozjs_small_run_53836), (53850,
      mozjs_small_run_53850),
     (53864, mozjs_small_run_53864), (53878, mozjs_small_run_53878), (53892,
       mozjs_small_run_53892),
     (53906, mozjs_small_run_53906), (53916, mozjs_small_run_53916), (53930,
       mozjs_small_run_53930),
     (53942, mozjs_small_run_53942), (53952, mozjs_small_run_53952), (53966,
       mozjs_small_run_53966),
     (53980, mozjs_small_run_53980), (53994, mozjs_small_run_53994), (54008,
       mozjs_small_run_54008)]"

definition mozjs_small_table_345 :: "(nat \<times> nat list) list" where
  "mozjs_small_table_345 =
    [(54022, mozjs_small_run_54022), (54032, mozjs_small_run_54032), (54046,
      mozjs_small_run_54046),
     (54060, mozjs_small_run_54060), (54070, mozjs_small_run_54070), (54080,
       mozjs_small_run_54080),
     (54094, mozjs_small_run_54094), (54108, mozjs_small_run_54108), (54122,
       mozjs_small_run_54122),
     (54136, mozjs_small_run_54136), (54150, mozjs_small_run_54150), (54164,
       mozjs_small_run_54164),
     (54178, mozjs_small_run_54178), (54192, mozjs_small_run_54192), (54206,
       mozjs_small_run_54206)]"

definition mozjs_small_table_346 :: "(nat \<times> nat list) list" where
  "mozjs_small_table_346 =
    [(54220, mozjs_small_run_54220), (54234, mozjs_small_run_54234), (54248,
      mozjs_small_run_54248),
     (54262, mozjs_small_run_54262), (54272, mozjs_small_run_54272), (54284,
       mozjs_small_run_54284),
     (54296, mozjs_small_run_54296), (54310, mozjs_small_run_54310), (54322,
       mozjs_small_run_54322),
     (54336, mozjs_small_run_54336), (54350, mozjs_small_run_54350), (54362,
       mozjs_small_run_54362),
     (54376, mozjs_small_run_54376), (54390, mozjs_small_run_54390), (54404,
       mozjs_small_run_54404)]"

definition mozjs_small_table_347 :: "(nat \<times> nat list) list" where
  "mozjs_small_table_347 =
    [(54418, mozjs_small_run_54418), (54432, mozjs_small_run_54432), (54446,
      mozjs_small_run_54446),
     (54460, mozjs_small_run_54460), (54472, mozjs_small_run_54472), (54486,
       mozjs_small_run_54486),
     (54496, mozjs_small_run_54496), (54506, mozjs_small_run_54506), (54518,
       mozjs_small_run_54518),
     (54532, mozjs_small_run_54532), (54544, mozjs_small_run_54544), (54556,
       mozjs_small_run_54556),
     (54570, mozjs_small_run_54570), (54582, mozjs_small_run_54582), (54596,
       mozjs_small_run_54596)]"

definition mozjs_small_table_348 :: "(nat \<times> nat list) list" where
  "mozjs_small_table_348 =
    [(54610, mozjs_small_run_54610), (54624, mozjs_small_run_54624), (54638,
      mozjs_small_run_54638),
     (54650, mozjs_small_run_54650), (54664, mozjs_small_run_54664), (54676,
       mozjs_small_run_54676),
     (54690, mozjs_small_run_54690), (54702, mozjs_small_run_54702), (54716,
       mozjs_small_run_54716),
     (54726, mozjs_small_run_54726), (54740, mozjs_small_run_54740), (54751,
       mozjs_small_run_54751),
     (54760, mozjs_small_run_54760), (54771, mozjs_small_run_54771), (54782,
       mozjs_small_run_54782),
     (54793, mozjs_small_run_54793), (54804, mozjs_small_run_54804)]"

definition mozjs_small_table_349 :: "(nat \<times> nat list) list" where
  "mozjs_small_table_349 =
    [(54813, mozjs_small_run_54813), (54824, mozjs_small_run_54824), (54835,
      mozjs_small_run_54835),
     (54846, mozjs_small_run_54846), (54857, mozjs_small_run_54857), (54868,
       mozjs_small_run_54868),
     (54879, mozjs_small_run_54879), (54890, mozjs_small_run_54890), (54901,
       mozjs_small_run_54901),
     (54912, mozjs_small_run_54912), (54923, mozjs_small_run_54923), (54934,
       mozjs_small_run_54934),
     (54945, mozjs_small_run_54945), (54956, mozjs_small_run_54956), (54967,
       mozjs_small_run_54967),
     (54978, mozjs_small_run_54978), (54989, mozjs_small_run_54989), (55000,
       mozjs_small_run_55000),
     (55009, mozjs_small_run_55009)]"

definition mozjs_small_table_350 :: "(nat \<times> nat list) list" where
  "mozjs_small_table_350 =
    [(55018, mozjs_small_run_55018), (55029, mozjs_small_run_55029), (55040,
      mozjs_small_run_55040),
     (55051, mozjs_small_run_55051), (55060, mozjs_small_run_55060), (55071,
       mozjs_small_run_55071),
     (55082, mozjs_small_run_55082), (55091, mozjs_small_run_55091), (55102,
       mozjs_small_run_55102),
     (55113, mozjs_small_run_55113), (55124, mozjs_small_run_55124), (55135,
       mozjs_small_run_55135),
     (55146, mozjs_small_run_55146), (55155, mozjs_small_run_55155), (55166,
       mozjs_small_run_55166),
     (55177, mozjs_small_run_55177), (55188, mozjs_small_run_55188), (55199,
       mozjs_small_run_55199),
     (55210, mozjs_small_run_55210)]"

definition mozjs_small_table_351 :: "(nat \<times> nat list) list" where
  "mozjs_small_table_351 =
    [(55221, mozjs_small_run_55221), (55232, mozjs_small_run_55232), (55243,
      mozjs_small_run_55243),
     (55254, mozjs_small_run_55254), (55265, mozjs_small_run_55265), (55274,
       mozjs_small_run_55274),
     (55285, mozjs_small_run_55285), (55296, mozjs_small_run_55296), (55307,
       mozjs_small_run_55307),
     (55318, mozjs_small_run_55318), (55329, mozjs_small_run_55329), (55338,
       mozjs_small_run_55338),
     (55349, mozjs_small_run_55349), (55360, mozjs_small_run_55360), (55371,
       mozjs_small_run_55371),
     (55382, mozjs_small_run_55382), (55393, mozjs_small_run_55393), (55404,
       mozjs_small_run_55404),
     (55415, mozjs_small_run_55415)]"

definition mozjs_small_table_352 :: "(nat \<times> nat list) list" where
  "mozjs_small_table_352 =
    [(55426, mozjs_small_run_55426), (55437, mozjs_small_run_55437), (55448,
      mozjs_small_run_55448),
     (55459, mozjs_small_run_55459), (55470, mozjs_small_run_55470), (55481,
       mozjs_small_run_55481),
     (55492, mozjs_small_run_55492), (55503, mozjs_small_run_55503), (55512,
       mozjs_small_run_55512),
     (55521, mozjs_small_run_55521), (55532, mozjs_small_run_55532), (55543,
       mozjs_small_run_55543),
     (55554, mozjs_small_run_55554), (55565, mozjs_small_run_55565), (55576,
       mozjs_small_run_55576),
     (55587, mozjs_small_run_55587), (55598, mozjs_small_run_55598), (55609,
       mozjs_small_run_55609),
     (55620, mozjs_small_run_55620)]"

definition mozjs_small_table_353 :: "(nat \<times> nat list) list" where
  "mozjs_small_table_353 =
    [(55631, mozjs_small_run_55631), (55642, mozjs_small_run_55642), (55653,
      mozjs_small_run_55653),
     (55664, mozjs_small_run_55664), (55675, mozjs_small_run_55675), (55686,
       mozjs_small_run_55686),
     (55697, mozjs_small_run_55697), (55708, mozjs_small_run_55708), (55719,
       mozjs_small_run_55719),
     (55730, mozjs_small_run_55730), (55741, mozjs_small_run_55741), (55752,
       mozjs_small_run_55752),
     (55763, mozjs_small_run_55763), (55774, mozjs_small_run_55774), (55785,
       mozjs_small_run_55785),
     (55796, mozjs_small_run_55796), (55807, mozjs_small_run_55807), (55818,
       mozjs_small_run_55818)]"

definition mozjs_small_table_354 :: "(nat \<times> nat list) list" where
  "mozjs_small_table_354 =
    [(55827, mozjs_small_run_55827), (55838, mozjs_small_run_55838), (55849,
      mozjs_small_run_55849),
     (55860, mozjs_small_run_55860), (55871, mozjs_small_run_55871), (55882,
       mozjs_small_run_55882),
     (55893, mozjs_small_run_55893), (55904, mozjs_small_run_55904), (55915,
       mozjs_small_run_55915),
     (55926, mozjs_small_run_55926), (55935, mozjs_small_run_55935), (55946,
       mozjs_small_run_55946),
     (55957, mozjs_small_run_55957), (55968, mozjs_small_run_55968), (55979,
       mozjs_small_run_55979),
     (55990, mozjs_small_run_55990), (56001, mozjs_small_run_56001), (56012,
       mozjs_small_run_56012)]"

definition mozjs_small_table_355 :: "(nat \<times> nat list) list" where
  "mozjs_small_table_355 =
    [(56023, mozjs_small_run_56023), (56034, mozjs_small_run_56034), (56045,
      mozjs_small_run_56045),
     (56056, mozjs_small_run_56056), (56067, mozjs_small_run_56067), (56078,
       mozjs_small_run_56078),
     (56089, mozjs_small_run_56089), (56100, mozjs_small_run_56100), (56111,
       mozjs_small_run_56111),
     (56122, mozjs_small_run_56122), (56133, mozjs_small_run_56133), (56144,
       mozjs_small_run_56144),
     (56153, mozjs_small_run_56153), (56162, mozjs_small_run_56162), (56173,
       mozjs_small_run_56173),
     (56184, mozjs_small_run_56184), (56195, mozjs_small_run_56195), (56206,
       mozjs_small_run_56206),
     (56217, mozjs_small_run_56217)]"

definition mozjs_small_table_356 :: "(nat \<times> nat list) list" where
  "mozjs_small_table_356 =
    [(56226, mozjs_small_run_56226), (56237, mozjs_small_run_56237), (56248,
      mozjs_small_run_56248),
     (56259, mozjs_small_run_56259), (56270, mozjs_small_run_56270), (56279,
       mozjs_small_run_56279),
     (56290, mozjs_small_run_56290), (56301, mozjs_small_run_56301), (56312,
       mozjs_small_run_56312),
     (56323, mozjs_small_run_56323), (56334, mozjs_small_run_56334), (56345,
       mozjs_small_run_56345),
     (56356, mozjs_small_run_56356), (56365, mozjs_small_run_56365), (56376,
       mozjs_small_run_56376),
     (56385, mozjs_small_run_56385), (56396, mozjs_small_run_56396), (56407,
       mozjs_small_run_56407),
     (56418, mozjs_small_run_56418)]"

definition mozjs_small_table_357 :: "(nat \<times> nat list) list" where
  "mozjs_small_table_357 =
    [(56429, mozjs_small_run_56429), (56438, mozjs_small_run_56438), (56447,
      mozjs_small_run_56447),
     (56456, mozjs_small_run_56456), (56465, mozjs_small_run_56465), (56476,
       mozjs_small_run_56476),
     (56487, mozjs_small_run_56487), (56498, mozjs_small_run_56498), (56509,
       mozjs_small_run_56509),
     (56520, mozjs_small_run_56520), (56531, mozjs_small_run_56531), (56542,
       mozjs_small_run_56542),
     (56553, mozjs_small_run_56553), (56564, mozjs_small_run_56564), (56575,
       mozjs_small_run_56575),
     (56586, mozjs_small_run_56586), (56597, mozjs_small_run_56597), (56608,
       mozjs_small_run_56608),
     (56619, mozjs_small_run_56619)]"

definition mozjs_small_table_358 :: "(nat \<times> nat list) list" where
  "mozjs_small_table_358 =
    [(56630, mozjs_small_run_56630), (56639, mozjs_small_run_56639), (56648,
      mozjs_small_run_56648),
     (56657, mozjs_small_run_56657), (56668, mozjs_small_run_56668), (56679,
       mozjs_small_run_56679),
     (56690, mozjs_small_run_56690), (56701, mozjs_small_run_56701), (56712,
       mozjs_small_run_56712),
     (56723, mozjs_small_run_56723), (56734, mozjs_small_run_56734), (56745,
       mozjs_small_run_56745),
     (56756, mozjs_small_run_56756), (56767, mozjs_small_run_56767), (56778,
       mozjs_small_run_56778),
     (56789, mozjs_small_run_56789), (56800, mozjs_small_run_56800), (56811,
       mozjs_small_run_56811),
     (56822, mozjs_small_run_56822)]"

definition mozjs_small_table_359 :: "(nat \<times> nat list) list" where
  "mozjs_small_table_359 =
    [(56833, mozjs_small_run_56833), (56844, mozjs_small_run_56844), (56855,
      mozjs_small_run_56855),
     (56866, mozjs_small_run_56866), (56877, mozjs_small_run_56877), (56888,
       mozjs_small_run_56888),
     (56899, mozjs_small_run_56899), (56910, mozjs_small_run_56910), (56921,
       mozjs_small_run_56921),
     (56932, mozjs_small_run_56932), (56943, mozjs_small_run_56943), (56954,
       mozjs_small_run_56954),
     (56965, mozjs_small_run_56965), (56976, mozjs_small_run_56976), (56987,
       mozjs_small_run_56987),
     (56998, mozjs_small_run_56998), (57007, mozjs_small_run_57007), (57018,
       mozjs_small_run_57018)]"

definition mozjs_small_table_360 :: "(nat \<times> nat list) list" where
  "mozjs_small_table_360 =
    [(57029, mozjs_small_run_57029), (57040, mozjs_small_run_57040), (57051,
      mozjs_small_run_57051),
     (57062, mozjs_small_run_57062), (57073, mozjs_small_run_57073), (57084,
       mozjs_small_run_57084),
     (57095, mozjs_small_run_57095), (57106, mozjs_small_run_57106), (57117,
       mozjs_small_run_57117),
     (57128, mozjs_small_run_57128), (57139, mozjs_small_run_57139), (57150,
       mozjs_small_run_57150),
     (57161, mozjs_small_run_57161), (57170, mozjs_small_run_57170), (57181,
       mozjs_small_run_57181),
     (57192, mozjs_small_run_57192), (57201, mozjs_small_run_57201), (57210,
       mozjs_small_run_57210),
     (57221, mozjs_small_run_57221)]"

definition mozjs_small_table_361 :: "(nat \<times> nat list) list" where
  "mozjs_small_table_361 =
    [(57230, mozjs_small_run_57230), (57241, mozjs_small_run_57241), (57252,
      mozjs_small_run_57252),
     (57261, mozjs_small_run_57261), (57272, mozjs_small_run_57272), (57283,
       mozjs_small_run_57283),
     (57292, mozjs_small_run_57292), (57303, mozjs_small_run_57303), (57314,
       mozjs_small_run_57314),
     (57323, mozjs_small_run_57323), (57334, mozjs_small_run_57334), (57345,
       mozjs_small_run_57345),
     (57354, mozjs_small_run_57354), (57365, mozjs_small_run_57365), (57376,
       mozjs_small_run_57376),
     (57387, mozjs_small_run_57387), (57396, mozjs_small_run_57396), (57404,
       mozjs_small_run_57404),
     (57412, mozjs_small_run_57412), (57420, mozjs_small_run_57420)]"

definition mozjs_small_table_362 :: "(nat \<times> nat list) list" where
  "mozjs_small_table_362 =
    [(57430, mozjs_small_run_57430), (57438, mozjs_small_run_57438), (57446,
      mozjs_small_run_57446),
     (57454, mozjs_small_run_57454), (57462, mozjs_small_run_57462), (57470,
       mozjs_small_run_57470),
     (57478, mozjs_small_run_57478), (57486, mozjs_small_run_57486), (57494,
       mozjs_small_run_57494),
     (57502, mozjs_small_run_57502), (57510, mozjs_small_run_57510), (57518,
       mozjs_small_run_57518),
     (57526, mozjs_small_run_57526), (57536, mozjs_small_run_57536), (57544,
       mozjs_small_run_57544),
     (57552, mozjs_small_run_57552), (57560, mozjs_small_run_57560), (57568,
       mozjs_small_run_57568),
     (57576, mozjs_small_run_57576), (57584, mozjs_small_run_57584), (57592,
       mozjs_small_run_57592),
     (57600, mozjs_small_run_57600), (57608, mozjs_small_run_57608), (57616,
       mozjs_small_run_57616)]"

definition mozjs_small_table_363 :: "(nat \<times> nat list) list" where
  "mozjs_small_table_363 =
    [(57624, mozjs_small_run_57624), (57632, mozjs_small_run_57632), (57640,
      mozjs_small_run_57640),
     (57648, mozjs_small_run_57648), (57656, mozjs_small_run_57656), (57664,
       mozjs_small_run_57664),
     (57672, mozjs_small_run_57672), (57680, mozjs_small_run_57680), (57688,
       mozjs_small_run_57688),
     (57696, mozjs_small_run_57696), (57706, mozjs_small_run_57706), (57714,
       mozjs_small_run_57714),
     (57722, mozjs_small_run_57722), (57730, mozjs_small_run_57730), (57738,
       mozjs_small_run_57738),
     (57746, mozjs_small_run_57746), (57754, mozjs_small_run_57754), (57764,
       mozjs_small_run_57764),
     (57772, mozjs_small_run_57772), (57780, mozjs_small_run_57780), (57788,
       mozjs_small_run_57788),
     (57796, mozjs_small_run_57796), (57804, mozjs_small_run_57804), (57812,
       mozjs_small_run_57812)]"

definition mozjs_small_table_364 :: "(nat \<times> nat list) list" where
  "mozjs_small_table_364 =
    [(57820, mozjs_small_run_57820), (57828, mozjs_small_run_57828), (57836,
      mozjs_small_run_57836),
     (57844, mozjs_small_run_57844), (57852, mozjs_small_run_57852), (57860,
       mozjs_small_run_57860),
     (57868, mozjs_small_run_57868), (57876, mozjs_small_run_57876), (57884,
       mozjs_small_run_57884),
     (57892, mozjs_small_run_57892), (57900, mozjs_small_run_57900), (57908,
       mozjs_small_run_57908),
     (57916, mozjs_small_run_57916), (57924, mozjs_small_run_57924), (57932,
       mozjs_small_run_57932),
     (57942, mozjs_small_run_57942), (57950, mozjs_small_run_57950), (57958,
       mozjs_small_run_57958),
     (57966, mozjs_small_run_57966), (57974, mozjs_small_run_57974), (57982,
       mozjs_small_run_57982),
     (57990, mozjs_small_run_57990), (57998, mozjs_small_run_57998), (58006,
       mozjs_small_run_58006)]"

definition mozjs_small_table_365 :: "(nat \<times> nat list) list" where
  "mozjs_small_table_365 =
    [(58014, mozjs_small_run_58014), (58022, mozjs_small_run_58022), (58030,
      mozjs_small_run_58030),
     (58040, mozjs_small_run_58040), (58048, mozjs_small_run_58048), (58056,
       mozjs_small_run_58056),
     (58064, mozjs_small_run_58064), (58072, mozjs_small_run_58072), (58080,
       mozjs_small_run_58080),
     (58088, mozjs_small_run_58088), (58096, mozjs_small_run_58096), (58104,
       mozjs_small_run_58104),
     (58112, mozjs_small_run_58112), (58120, mozjs_small_run_58120), (58128,
       mozjs_small_run_58128),
     (58136, mozjs_small_run_58136), (58144, mozjs_small_run_58144), (58152,
       mozjs_small_run_58152),
     (58160, mozjs_small_run_58160), (58168, mozjs_small_run_58168), (58176,
       mozjs_small_run_58176),
     (58184, mozjs_small_run_58184), (58194, mozjs_small_run_58194), (58202,
       mozjs_small_run_58202)]"

definition mozjs_small_table_366 :: "(nat \<times> nat list) list" where
  "mozjs_small_table_366 =
    [(58210, mozjs_small_run_58210), (58220, mozjs_small_run_58220), (58228,
      mozjs_small_run_58228),
     (58236, mozjs_small_run_58236), (58244, mozjs_small_run_58244), (58252,
       mozjs_small_run_58252),
     (58260, mozjs_small_run_58260), (58268, mozjs_small_run_58268), (58276,
       mozjs_small_run_58276),
     (58284, mozjs_small_run_58284), (58292, mozjs_small_run_58292), (58300,
       mozjs_small_run_58300),
     (58308, mozjs_small_run_58308), (58316, mozjs_small_run_58316), (58324,
       mozjs_small_run_58324),
     (58332, mozjs_small_run_58332), (58340, mozjs_small_run_58340), (58348,
       mozjs_small_run_58348),
     (58356, mozjs_small_run_58356), (58364, mozjs_small_run_58364), (58372,
       mozjs_small_run_58372),
     (58380, mozjs_small_run_58380)]"

definition mozjs_ts_small_parse_table :: "(nat \<times> nat list) list" where
  "mozjs_ts_small_parse_table = mozjs_small_table_0 @ mozjs_small_table_1 @ mozjs_small_table_2 @
    mozjs_small_table_3 @ mozjs_small_table_4 @ mozjs_small_table_5 @ mozjs_small_table_6 @
    mozjs_small_table_7 @ mozjs_small_table_8 @ mozjs_small_table_9 @ mozjs_small_table_10 @
    mozjs_small_table_11 @ mozjs_small_table_12 @ mozjs_small_table_13 @ mozjs_small_table_14 @
    mozjs_small_table_15 @ mozjs_small_table_16 @ mozjs_small_table_17 @ mozjs_small_table_18 @
    mozjs_small_table_19 @ mozjs_small_table_20 @ mozjs_small_table_21 @ mozjs_small_table_22 @
    mozjs_small_table_23 @ mozjs_small_table_24 @ mozjs_small_table_25 @ mozjs_small_table_26 @
    mozjs_small_table_27 @ mozjs_small_table_28 @ mozjs_small_table_29 @ mozjs_small_table_30 @
    mozjs_small_table_31 @ mozjs_small_table_32 @ mozjs_small_table_33 @ mozjs_small_table_34 @
    mozjs_small_table_35 @ mozjs_small_table_36 @ mozjs_small_table_37 @ mozjs_small_table_38 @
    mozjs_small_table_39 @ mozjs_small_table_40 @ mozjs_small_table_41 @ mozjs_small_table_42 @
    mozjs_small_table_43 @ mozjs_small_table_44 @ mozjs_small_table_45 @ mozjs_small_table_46 @
    mozjs_small_table_47 @ mozjs_small_table_48 @ mozjs_small_table_49 @ mozjs_small_table_50 @
    mozjs_small_table_51 @ mozjs_small_table_52 @ mozjs_small_table_53 @ mozjs_small_table_54 @
    mozjs_small_table_55 @ mozjs_small_table_56 @ mozjs_small_table_57 @ mozjs_small_table_58 @
    mozjs_small_table_59 @ mozjs_small_table_60 @ mozjs_small_table_61 @ mozjs_small_table_62 @
    mozjs_small_table_63 @ mozjs_small_table_64 @ mozjs_small_table_65 @ mozjs_small_table_66 @
    mozjs_small_table_67 @ mozjs_small_table_68 @ mozjs_small_table_69 @ mozjs_small_table_70 @
    mozjs_small_table_71 @ mozjs_small_table_72 @ mozjs_small_table_73 @ mozjs_small_table_74 @
    mozjs_small_table_75 @ mozjs_small_table_76 @ mozjs_small_table_77 @ mozjs_small_table_78 @
    mozjs_small_table_79 @ mozjs_small_table_80 @ mozjs_small_table_81 @ mozjs_small_table_82 @
    mozjs_small_table_83 @ mozjs_small_table_84 @ mozjs_small_table_85 @ mozjs_small_table_86 @
    mozjs_small_table_87 @ mozjs_small_table_88 @ mozjs_small_table_89 @ mozjs_small_table_90 @
    mozjs_small_table_91 @ mozjs_small_table_92 @ mozjs_small_table_93 @ mozjs_small_table_94 @
    mozjs_small_table_95 @ mozjs_small_table_96 @ mozjs_small_table_97 @ mozjs_small_table_98 @
    mozjs_small_table_99 @ mozjs_small_table_100 @ mozjs_small_table_101 @ mozjs_small_table_102
    @ mozjs_small_table_103 @ mozjs_small_table_104 @ mozjs_small_table_105 @
    mozjs_small_table_106 @ mozjs_small_table_107 @ mozjs_small_table_108 @ mozjs_small_table_109
    @ mozjs_small_table_110 @ mozjs_small_table_111 @ mozjs_small_table_112 @
    mozjs_small_table_113 @ mozjs_small_table_114 @ mozjs_small_table_115 @ mozjs_small_table_116
    @ mozjs_small_table_117 @ mozjs_small_table_118 @ mozjs_small_table_119 @
    mozjs_small_table_120 @ mozjs_small_table_121 @ mozjs_small_table_122 @ mozjs_small_table_123
    @ mozjs_small_table_124 @ mozjs_small_table_125 @ mozjs_small_table_126 @
    mozjs_small_table_127 @ mozjs_small_table_128 @ mozjs_small_table_129 @ mozjs_small_table_130
    @ mozjs_small_table_131 @ mozjs_small_table_132 @ mozjs_small_table_133 @
    mozjs_small_table_134 @ mozjs_small_table_135 @ mozjs_small_table_136 @ mozjs_small_table_137
    @ mozjs_small_table_138 @ mozjs_small_table_139 @ mozjs_small_table_140 @
    mozjs_small_table_141 @ mozjs_small_table_142 @ mozjs_small_table_143 @ mozjs_small_table_144
    @ mozjs_small_table_145 @ mozjs_small_table_146 @ mozjs_small_table_147 @
    mozjs_small_table_148 @ mozjs_small_table_149 @ mozjs_small_table_150 @ mozjs_small_table_151
    @ mozjs_small_table_152 @ mozjs_small_table_153 @ mozjs_small_table_154 @
    mozjs_small_table_155 @ mozjs_small_table_156 @ mozjs_small_table_157 @ mozjs_small_table_158
    @ mozjs_small_table_159 @ mozjs_small_table_160 @ mozjs_small_table_161 @
    mozjs_small_table_162 @ mozjs_small_table_163 @ mozjs_small_table_164 @ mozjs_small_table_165
    @ mozjs_small_table_166 @ mozjs_small_table_167 @ mozjs_small_table_168 @
    mozjs_small_table_169 @ mozjs_small_table_170 @ mozjs_small_table_171 @ mozjs_small_table_172
    @ mozjs_small_table_173 @ mozjs_small_table_174 @ mozjs_small_table_175 @
    mozjs_small_table_176 @ mozjs_small_table_177 @ mozjs_small_table_178 @ mozjs_small_table_179
    @ mozjs_small_table_180 @ mozjs_small_table_181 @ mozjs_small_table_182 @
    mozjs_small_table_183 @ mozjs_small_table_184 @ mozjs_small_table_185 @ mozjs_small_table_186
    @ mozjs_small_table_187 @ mozjs_small_table_188 @ mozjs_small_table_189 @
    mozjs_small_table_190 @ mozjs_small_table_191 @ mozjs_small_table_192 @ mozjs_small_table_193
    @ mozjs_small_table_194 @ mozjs_small_table_195 @ mozjs_small_table_196 @
    mozjs_small_table_197 @ mozjs_small_table_198 @ mozjs_small_table_199 @ mozjs_small_table_200
    @ mozjs_small_table_201 @ mozjs_small_table_202 @ mozjs_small_table_203 @
    mozjs_small_table_204 @ mozjs_small_table_205 @ mozjs_small_table_206 @ mozjs_small_table_207
    @ mozjs_small_table_208 @ mozjs_small_table_209 @ mozjs_small_table_210 @
    mozjs_small_table_211 @ mozjs_small_table_212 @ mozjs_small_table_213 @ mozjs_small_table_214
    @ mozjs_small_table_215 @ mozjs_small_table_216 @ mozjs_small_table_217 @
    mozjs_small_table_218 @ mozjs_small_table_219 @ mozjs_small_table_220 @ mozjs_small_table_221
    @ mozjs_small_table_222 @ mozjs_small_table_223 @ mozjs_small_table_224 @
    mozjs_small_table_225 @ mozjs_small_table_226 @ mozjs_small_table_227 @ mozjs_small_table_228
    @ mozjs_small_table_229 @ mozjs_small_table_230 @ mozjs_small_table_231 @
    mozjs_small_table_232 @ mozjs_small_table_233 @ mozjs_small_table_234 @ mozjs_small_table_235
    @ mozjs_small_table_236 @ mozjs_small_table_237 @ mozjs_small_table_238 @
    mozjs_small_table_239 @ mozjs_small_table_240 @ mozjs_small_table_241 @ mozjs_small_table_242
    @ mozjs_small_table_243 @ mozjs_small_table_244 @ mozjs_small_table_245 @
    mozjs_small_table_246 @ mozjs_small_table_247 @ mozjs_small_table_248 @ mozjs_small_table_249
    @ mozjs_small_table_250 @ mozjs_small_table_251 @ mozjs_small_table_252 @
    mozjs_small_table_253 @ mozjs_small_table_254 @ mozjs_small_table_255 @ mozjs_small_table_256
    @ mozjs_small_table_257 @ mozjs_small_table_258 @ mozjs_small_table_259 @
    mozjs_small_table_260 @ mozjs_small_table_261 @ mozjs_small_table_262 @ mozjs_small_table_263
    @ mozjs_small_table_264 @ mozjs_small_table_265 @ mozjs_small_table_266 @
    mozjs_small_table_267 @ mozjs_small_table_268 @ mozjs_small_table_269 @ mozjs_small_table_270
    @ mozjs_small_table_271 @ mozjs_small_table_272 @ mozjs_small_table_273 @
    mozjs_small_table_274 @ mozjs_small_table_275 @ mozjs_small_table_276 @ mozjs_small_table_277
    @ mozjs_small_table_278 @ mozjs_small_table_279 @ mozjs_small_table_280 @
    mozjs_small_table_281 @ mozjs_small_table_282 @ mozjs_small_table_283 @ mozjs_small_table_284
    @ mozjs_small_table_285 @ mozjs_small_table_286 @ mozjs_small_table_287 @
    mozjs_small_table_288 @ mozjs_small_table_289 @ mozjs_small_table_290 @ mozjs_small_table_291
    @ mozjs_small_table_292 @ mozjs_small_table_293 @ mozjs_small_table_294 @
    mozjs_small_table_295 @ mozjs_small_table_296 @ mozjs_small_table_297 @ mozjs_small_table_298
    @ mozjs_small_table_299 @ mozjs_small_table_300 @ mozjs_small_table_301 @
    mozjs_small_table_302 @ mozjs_small_table_303 @ mozjs_small_table_304 @ mozjs_small_table_305
    @ mozjs_small_table_306 @ mozjs_small_table_307 @ mozjs_small_table_308 @
    mozjs_small_table_309 @ mozjs_small_table_310 @ mozjs_small_table_311 @ mozjs_small_table_312
    @ mozjs_small_table_313 @ mozjs_small_table_314 @ mozjs_small_table_315 @
    mozjs_small_table_316 @ mozjs_small_table_317 @ mozjs_small_table_318 @ mozjs_small_table_319
    @ mozjs_small_table_320 @ mozjs_small_table_321 @ mozjs_small_table_322 @
    mozjs_small_table_323 @ mozjs_small_table_324 @ mozjs_small_table_325 @ mozjs_small_table_326
    @ mozjs_small_table_327 @ mozjs_small_table_328 @ mozjs_small_table_329 @
    mozjs_small_table_330 @ mozjs_small_table_331 @ mozjs_small_table_332 @ mozjs_small_table_333
    @ mozjs_small_table_334 @ mozjs_small_table_335 @ mozjs_small_table_336 @
    mozjs_small_table_337 @ mozjs_small_table_338 @ mozjs_small_table_339 @ mozjs_small_table_340
    @ mozjs_small_table_341 @ mozjs_small_table_342 @ mozjs_small_table_343 @
    mozjs_small_table_344 @ mozjs_small_table_345 @ mozjs_small_table_346 @ mozjs_small_table_347
    @ mozjs_small_table_348 @ mozjs_small_table_349 @ mozjs_small_table_350 @
    mozjs_small_table_351 @ mozjs_small_table_352 @ mozjs_small_table_353 @ mozjs_small_table_354
    @ mozjs_small_table_355 @ mozjs_small_table_356 @ mozjs_small_table_357 @
    mozjs_small_table_358 @ mozjs_small_table_359 @ mozjs_small_table_360 @ mozjs_small_table_361
    @ mozjs_small_table_362 @ mozjs_small_table_363 @ mozjs_small_table_364 @
    mozjs_small_table_365 @ mozjs_small_table_366"

text \<open>\<^verbatim>\<open>SMALL_STATE(id)\<close> is \<^verbatim>\<open>id - LARGE_STATE_COUNT\<close>.\<close>

definition mozjs_small_map_0 :: "(nat \<times> nat) list" where
  "mozjs_small_map_0 =
    [(SMALL_STATE 388 388, 0), (SMALL_STATE 388 389, 73), (SMALL_STATE 388 390, 160),
     (SMALL_STATE 388 391, 231), (SMALL_STATE 388 392, 318), (SMALL_STATE 388 393, 409),
     (SMALL_STATE 388 394, 480), (SMALL_STATE 388 395, 551), (SMALL_STATE 388 396, 622),
     (SMALL_STATE 388 397, 693), (SMALL_STATE 388 398, 766), (SMALL_STATE 388 399, 837),
     (SMALL_STATE 388 400, 910), (SMALL_STATE 388 401, 983), (SMALL_STATE 388 402, 1056),
     (SMALL_STATE 388 403, 1129), (SMALL_STATE 388 404, 1204), (SMALL_STATE 388 405, 1277),
     (SMALL_STATE 388 406, 1350), (SMALL_STATE 388 407, 1423), (SMALL_STATE 388 408, 1496),
     (SMALL_STATE 388 409, 1569), (SMALL_STATE 388 410, 1640), (SMALL_STATE 388 411, 1710),
     (SMALL_STATE 388 412, 1780), (SMALL_STATE 388 413, 1850), (SMALL_STATE 388 414, 1920),
     (SMALL_STATE 388 415, 1990), (SMALL_STATE 388 416, 2060), (SMALL_STATE 388 417, 2130),
     (SMALL_STATE 388 418, 2200), (SMALL_STATE 388 419, 2270), (SMALL_STATE 388 420, 2340),
     (SMALL_STATE 388 421, 2410), (SMALL_STATE 388 422, 2480), (SMALL_STATE 388 423, 2550),
     (SMALL_STATE 388 424, 2620), (SMALL_STATE 388 425, 2690), (SMALL_STATE 388 426, 2760),
     (SMALL_STATE 388 427, 2830), (SMALL_STATE 388 428, 2900), (SMALL_STATE 388 429, 2970),
     (SMALL_STATE 388 430, 3040), (SMALL_STATE 388 431, 3110), (SMALL_STATE 388 432, 3180),
     (SMALL_STATE 388 433, 3250), (SMALL_STATE 388 434, 3320), (SMALL_STATE 388 435, 3390),
     (SMALL_STATE 388 436, 3460), (SMALL_STATE 388 437, 3530), (SMALL_STATE 388 438, 3600),
     (SMALL_STATE 388 439, 3670), (SMALL_STATE 388 440, 3740), (SMALL_STATE 388 441, 3826),
     (SMALL_STATE 388 442, 3896), (SMALL_STATE 388 443, 3966), (SMALL_STATE 388 444, 4036),
     (SMALL_STATE 388 445, 4122), (SMALL_STATE 388 446, 4192), (SMALL_STATE 388 447, 4262)]"

definition mozjs_small_map_1 :: "(nat \<times> nat) list" where
  "mozjs_small_map_1 =
    [(SMALL_STATE 388 448, 4332), (SMALL_STATE 388 449, 4402), (SMALL_STATE 388 450, 4472),
     (SMALL_STATE 388 451, 4542), (SMALL_STATE 388 452, 4612), (SMALL_STATE 388 453, 4682),
     (SMALL_STATE 388 454, 4772), (SMALL_STATE 388 455, 4842), (SMALL_STATE 388 456, 4912),
     (SMALL_STATE 388 457, 4982), (SMALL_STATE 388 458, 5052), (SMALL_STATE 388 459, 5142),
     (SMALL_STATE 388 460, 5212), (SMALL_STATE 388 461, 5282), (SMALL_STATE 388 462, 5352),
     (SMALL_STATE 388 463, 5422), (SMALL_STATE 388 464, 5492), (SMALL_STATE 388 465, 5562),
     (SMALL_STATE 388 466, 5632), (SMALL_STATE 388 467, 5702), (SMALL_STATE 388 468, 5772),
     (SMALL_STATE 388 469, 5842), (SMALL_STATE 388 470, 5912), (SMALL_STATE 388 471, 5982),
     (SMALL_STATE 388 472, 6052), (SMALL_STATE 388 473, 6122), (SMALL_STATE 388 474, 6192),
     (SMALL_STATE 388 475, 6262), (SMALL_STATE 388 476, 6332), (SMALL_STATE 388 477, 6402),
     (SMALL_STATE 388 478, 6472), (SMALL_STATE 388 479, 6542), (SMALL_STATE 388 480, 6612),
     (SMALL_STATE 388 481, 6682), (SMALL_STATE 388 482, 6752), (SMALL_STATE 388 483, 6838),
     (SMALL_STATE 388 484, 6924), (SMALL_STATE 388 485, 7010), (SMALL_STATE 388 486, 7080),
     (SMALL_STATE 388 487, 7170), (SMALL_STATE 388 488, 7240), (SMALL_STATE 388 489, 7328),
     (SMALL_STATE 388 490, 7414), (SMALL_STATE 388 491, 7480), (SMALL_STATE 388 492, 7562),
     (SMALL_STATE 388 493, 7628), (SMALL_STATE 388 494, 7694), (SMALL_STATE 388 495, 7760),
     (SMALL_STATE 388 496, 7826), (SMALL_STATE 388 497, 7908), (SMALL_STATE 388 498, 7974),
     (SMALL_STATE 388 499, 8040), (SMALL_STATE 388 500, 8110), (SMALL_STATE 388 501, 8192),
     (SMALL_STATE 388 502, 8257), (SMALL_STATE 388 503, 8328), (SMALL_STATE 388 504, 8411),
     (SMALL_STATE 388 505, 8482), (SMALL_STATE 388 506, 8547), (SMALL_STATE 388 507, 8618)]"

definition mozjs_small_map_2 :: "(nat \<times> nat) list" where
  "mozjs_small_map_2 =
    [(SMALL_STATE 388 508, 8683), (SMALL_STATE 388 509, 8748), (SMALL_STATE 388 510, 8813),
     (SMALL_STATE 388 511, 8878), (SMALL_STATE 388 512, 8949), (SMALL_STATE 388 513, 9014),
     (SMALL_STATE 388 514, 9079), (SMALL_STATE 388 515, 9144), (SMALL_STATE 388 516, 9209),
     (SMALL_STATE 388 517, 9274), (SMALL_STATE 388 518, 9339), (SMALL_STATE 388 519, 9404),
     (SMALL_STATE 388 520, 9469), (SMALL_STATE 388 521, 9534), (SMALL_STATE 388 522, 9599),
     (SMALL_STATE 388 523, 9664), (SMALL_STATE 388 524, 9729), (SMALL_STATE 388 525, 9794),
     (SMALL_STATE 388 526, 9862), (SMALL_STATE 388 527, 9925), (SMALL_STATE 388 528, 9994),
     (SMALL_STATE 388 529, 10065), (SMALL_STATE 388 530, 10136), (SMALL_STATE 388 531, 10199),
     (SMALL_STATE 388 532, 10270), (SMALL_STATE 388 533, 10333), (SMALL_STATE 388 534, 10402),
     (SMALL_STATE 388 535, 10465), (SMALL_STATE 388 536, 10528), (SMALL_STATE 388 537, 10597),
     (SMALL_STATE 388 538, 10668), (SMALL_STATE 388 539, 10739), (SMALL_STATE 388 540, 10808),
     (SMALL_STATE 388 541, 10879), (SMALL_STATE 388 542, 10948), (SMALL_STATE 388 543, 11019),
     (SMALL_STATE 388 544, 11088), (SMALL_STATE 388 545, 11151), (SMALL_STATE 388 546, 11214),
     (SMALL_STATE 388 547, 11281), (SMALL_STATE 388 548, 11352), (SMALL_STATE 388 549, 11423),
     (SMALL_STATE 388 550, 11494), (SMALL_STATE 388 551, 11563), (SMALL_STATE 388 552, 11632),
     (SMALL_STATE 388 553, 11704), (SMALL_STATE 388 554, 11774), (SMALL_STATE 388 555, 11842),
     (SMALL_STATE 388 556, 11910), (SMALL_STATE 388 557, 11976), (SMALL_STATE 388 558, 12048),
     (SMALL_STATE 388 559, 12116), (SMALL_STATE 388 560, 12182), (SMALL_STATE 388 561, 12252),
     (SMALL_STATE 388 562, 12323), (SMALL_STATE 388 563, 12392), (SMALL_STATE 388 564, 12459),
     (SMALL_STATE 388 565, 12530), (SMALL_STATE 388 566, 12596), (SMALL_STATE 388 567, 12662)]"

definition mozjs_small_map_3 :: "(nat \<times> nat) list" where
  "mozjs_small_map_3 =
    [(SMALL_STATE 388 568, 12728), (SMALL_STATE 388 569, 12794), (SMALL_STATE 388 570, 12862),
     (SMALL_STATE 388 571, 12928), (SMALL_STATE 388 572, 12994), (SMALL_STATE 388 573, 13060),
     (SMALL_STATE 388 574, 13130), (SMALL_STATE 388 575, 13196), (SMALL_STATE 388 576, 13266),
     (SMALL_STATE 388 577, 13332), (SMALL_STATE 388 578, 13398), (SMALL_STATE 388 579, 13461),
     (SMALL_STATE 388 580, 13524), (SMALL_STATE 388 581, 13591), (SMALL_STATE 388 582, 13647),
     (SMALL_STATE 388 583, 13713), (SMALL_STATE 388 584, 13773), (SMALL_STATE 388 585, 13834),
     (SMALL_STATE 388 586, 13895), (SMALL_STATE 388 587, 13958), (SMALL_STATE 388 588, 14013),
     (SMALL_STATE 388 589, 14066), (SMALL_STATE 388 590, 14119), (SMALL_STATE 388 591, 14172),
     (SMALL_STATE 388 592, 14235), (SMALL_STATE 388 593, 14285), (SMALL_STATE 388 594, 14335),
     (SMALL_STATE 388 595, 14385), (SMALL_STATE 388 596, 14435), (SMALL_STATE 388 597, 14485),
     (SMALL_STATE 388 598, 14535), (SMALL_STATE 388 599, 14585), (SMALL_STATE 388 600, 14639),
     (SMALL_STATE 388 601, 14689), (SMALL_STATE 388 602, 14739), (SMALL_STATE 388 603, 14789),
     (SMALL_STATE 388 604, 14839), (SMALL_STATE 388 605, 14889), (SMALL_STATE 388 606, 14939),
     (SMALL_STATE 388 607, 14989), (SMALL_STATE 388 608, 15039), (SMALL_STATE 388 609, 15089),
     (SMALL_STATE 388 610, 15139), (SMALL_STATE 388 611, 15193), (SMALL_STATE 388 612, 15243),
     (SMALL_STATE 388 613, 15293), (SMALL_STATE 388 614, 15343), (SMALL_STATE 388 615, 15393),
     (SMALL_STATE 388 616, 15443), (SMALL_STATE 388 617, 15493), (SMALL_STATE 388 618, 15543),
     (SMALL_STATE 388 619, 15593), (SMALL_STATE 388 620, 15643), (SMALL_STATE 388 621, 15693),
     (SMALL_STATE 388 622, 15743), (SMALL_STATE 388 623, 15793), (SMALL_STATE 388 624, 15845),
     (SMALL_STATE 388 625, 15895), (SMALL_STATE 388 626, 15945), (SMALL_STATE 388 627, 15995)]"

definition mozjs_small_map_4 :: "(nat \<times> nat) list" where
  "mozjs_small_map_4 =
    [(SMALL_STATE 388 628, 16045), (SMALL_STATE 388 629, 16095), (SMALL_STATE 388 630, 16145),
     (SMALL_STATE 388 631, 16195), (SMALL_STATE 388 632, 16245), (SMALL_STATE 388 633, 16295),
     (SMALL_STATE 388 634, 16345), (SMALL_STATE 388 635, 16395), (SMALL_STATE 388 636, 16445),
     (SMALL_STATE 388 637, 16495), (SMALL_STATE 388 638, 16545), (SMALL_STATE 388 639, 16595),
     (SMALL_STATE 388 640, 16645), (SMALL_STATE 388 641, 16695), (SMALL_STATE 388 642, 16745),
     (SMALL_STATE 388 643, 16795), (SMALL_STATE 388 644, 16845), (SMALL_STATE 388 645, 16895),
     (SMALL_STATE 388 646, 16945), (SMALL_STATE 388 647, 16995), (SMALL_STATE 388 648, 17045),
     (SMALL_STATE 388 649, 17095), (SMALL_STATE 388 650, 17145), (SMALL_STATE 388 651, 17199),
     (SMALL_STATE 388 652, 17249), (SMALL_STATE 388 653, 17299), (SMALL_STATE 388 654, 17376),
     (SMALL_STATE 388 655, 17425), (SMALL_STATE 388 656, 17476), (SMALL_STATE 388 657, 17525),
     (SMALL_STATE 388 658, 17618), (SMALL_STATE 388 659, 17681), (SMALL_STATE 388 660, 17766),
     (SMALL_STATE 388 661, 17853), (SMALL_STATE 388 662, 17922), (SMALL_STATE 388 663, 18003),
     (SMALL_STATE 388 664, 18086), (SMALL_STATE 388 665, 18171), (SMALL_STATE 388 666, 18264),
     (SMALL_STATE 388 667, 18331), (SMALL_STATE 388 668, 18424), (SMALL_STATE 388 669, 18487),
     (SMALL_STATE 388 670, 18536), (SMALL_STATE 388 671, 18625), (SMALL_STATE 388 672, 18688),
     (SMALL_STATE 388 673, 18781), (SMALL_STATE 388 674, 18874), (SMALL_STATE 388 675, 18967),
     (SMALL_STATE 388 676, 19060), (SMALL_STATE 388 677, 19153), (SMALL_STATE 388 678, 19246),
     (SMALL_STATE 388 679, 19339), (SMALL_STATE 388 680, 19390), (SMALL_STATE 388 681, 19439),
     (SMALL_STATE 388 682, 19512), (SMALL_STATE 388 683, 19569), (SMALL_STATE 388 684, 19662),
     (SMALL_STATE 388 685, 19755), (SMALL_STATE 388 686, 19806), (SMALL_STATE 388 687, 19857)]"

definition mozjs_small_map_5 :: "(nat \<times> nat) list" where
  "mozjs_small_map_5 =
    [(SMALL_STATE 388 688, 19905), (SMALL_STATE 388 689, 19955), (SMALL_STATE 388 690, 20013),
     (SMALL_STATE 388 691, 20105), (SMALL_STATE 388 692, 20155), (SMALL_STATE 388 693, 20207),
     (SMALL_STATE 388 694, 20265), (SMALL_STATE 388 695, 20313), (SMALL_STATE 388 696, 20365),
     (SMALL_STATE 388 697, 20419), (SMALL_STATE 388 698, 20469), (SMALL_STATE 388 699, 20529),
     (SMALL_STATE 388 700, 20579), (SMALL_STATE 388 701, 20639), (SMALL_STATE 388 702, 20730),
     (SMALL_STATE 388 703, 20777), (SMALL_STATE 388 704, 20868), (SMALL_STATE 388 705, 20915),
     (SMALL_STATE 388 706, 20962), (SMALL_STATE 388 707, 21011), (SMALL_STATE 388 708, 21102),
     (SMALL_STATE 388 709, 21193), (SMALL_STATE 388 710, 21264), (SMALL_STATE 388 711, 21325),
     (SMALL_STATE 388 712, 21372), (SMALL_STATE 388 713, 21455), (SMALL_STATE 388 714, 21540),
     (SMALL_STATE 388 715, 21607), (SMALL_STATE 388 716, 21686), (SMALL_STATE 388 717, 21767),
     (SMALL_STATE 388 718, 21850), (SMALL_STATE 388 719, 21915), (SMALL_STATE 388 720, 21976),
     (SMALL_STATE 388 721, 22051), (SMALL_STATE 388 722, 22138), (SMALL_STATE 388 723, 22229),
     (SMALL_STATE 388 724, 22320), (SMALL_STATE 388 725, 22411), (SMALL_STATE 388 726, 22458),
     (SMALL_STATE 388 727, 22549), (SMALL_STATE 388 728, 22640), (SMALL_STATE 388 729, 22731),
     (SMALL_STATE 388 730, 22778), (SMALL_STATE 388 731, 22869), (SMALL_STATE 388 732, 22940),
     (SMALL_STATE 388 733, 23031), (SMALL_STATE 388 734, 23078), (SMALL_STATE 388 735, 23125),
     (SMALL_STATE 388 736, 23172), (SMALL_STATE 388 737, 23263), (SMALL_STATE 388 738, 23310),
     (SMALL_STATE 388 739, 23357), (SMALL_STATE 388 740, 23404), (SMALL_STATE 388 741, 23451),
     (SMALL_STATE 388 742, 23502), (SMALL_STATE 388 743, 23549), (SMALL_STATE 388 744, 23596),
     (SMALL_STATE 388 745, 23643), (SMALL_STATE 388 746, 23694), (SMALL_STATE 388 747, 23745)]"

definition mozjs_small_map_6 :: "(nat \<times> nat) list" where
  "mozjs_small_map_6 =
    [(SMALL_STATE 388 748, 23792), (SMALL_STATE 388 749, 23839), (SMALL_STATE 388 750, 23930),
     (SMALL_STATE 388 751, 24021), (SMALL_STATE 388 752, 24072), (SMALL_STATE 388 753, 24163),
     (SMALL_STATE 388 754, 24214), (SMALL_STATE 388 755, 24261), (SMALL_STATE 388 756, 24352),
     (SMALL_STATE 388 757, 24399), (SMALL_STATE 388 758, 24460), (SMALL_STATE 388 759, 24509),
     (SMALL_STATE 388 760, 24592), (SMALL_STATE 388 761, 24639), (SMALL_STATE 388 762, 24724),
     (SMALL_STATE 388 763, 24775), (SMALL_STATE 388 764, 24866), (SMALL_STATE 388 765, 24917),
     (SMALL_STATE 388 766, 24984), (SMALL_STATE 388 767, 25035), (SMALL_STATE 388 768, 25086),
     (SMALL_STATE 388 769, 25133), (SMALL_STATE 388 770, 25212), (SMALL_STATE 388 771, 25263),
     (SMALL_STATE 388 772, 25344), (SMALL_STATE 388 773, 25391), (SMALL_STATE 388 774, 25438),
     (SMALL_STATE 388 775, 25485), (SMALL_STATE 388 776, 25576), (SMALL_STATE 388 777, 25623),
     (SMALL_STATE 388 778, 25670), (SMALL_STATE 388 779, 25717), (SMALL_STATE 388 780, 25764),
     (SMALL_STATE 388 781, 25847), (SMALL_STATE 388 782, 25912), (SMALL_STATE 388 783, 25973),
     (SMALL_STATE 388 784, 26048), (SMALL_STATE 388 785, 26099), (SMALL_STATE 388 786, 26190),
     (SMALL_STATE 388 787, 26277), (SMALL_STATE 388 788, 26324), (SMALL_STATE 388 789, 26371),
     (SMALL_STATE 388 790, 26418), (SMALL_STATE 388 791, 26465), (SMALL_STATE 388 792, 26512),
     (SMALL_STATE 388 793, 26559), (SMALL_STATE 388 794, 26606), (SMALL_STATE 388 795, 26653),
     (SMALL_STATE 388 796, 26700), (SMALL_STATE 388 797, 26791), (SMALL_STATE 388 798, 26838),
     (SMALL_STATE 388 799, 26887), (SMALL_STATE 388 800, 26934), (SMALL_STATE 388 801, 26981),
     (SMALL_STATE 388 802, 27028), (SMALL_STATE 388 803, 27079), (SMALL_STATE 388 804, 27126),
     (SMALL_STATE 388 805, 27173), (SMALL_STATE 388 806, 27220), (SMALL_STATE 388 807, 27267)]"

definition mozjs_small_map_7 :: "(nat \<times> nat) list" where
  "mozjs_small_map_7 =
    [(SMALL_STATE 388 808, 27314), (SMALL_STATE 388 809, 27405), (SMALL_STATE 388 810, 27452),
     (SMALL_STATE 388 811, 27503), (SMALL_STATE 388 812, 27550), (SMALL_STATE 388 813, 27641),
     (SMALL_STATE 388 814, 27692), (SMALL_STATE 388 815, 27783), (SMALL_STATE 388 816, 27832),
     (SMALL_STATE 388 817, 27879), (SMALL_STATE 388 818, 27931), (SMALL_STATE 388 819, 27981),
     (SMALL_STATE 388 820, 28033), (SMALL_STATE 388 821, 28123), (SMALL_STATE 388 822, 28217),
     (SMALL_STATE 388 823, 28311), (SMALL_STATE 388 824, 28405), (SMALL_STATE 388 825, 28455),
     (SMALL_STATE 388 826, 28507), (SMALL_STATE 388 827, 28599), (SMALL_STATE 388 828, 28649),
     (SMALL_STATE 388 829, 28739), (SMALL_STATE 388 830, 28833), (SMALL_STATE 388 831, 28927),
     (SMALL_STATE 388 832, 28979), (SMALL_STATE 388 833, 29073), (SMALL_STATE 388 834, 29160),
     (SMALL_STATE 388 835, 29253), (SMALL_STATE 388 836, 29346), (SMALL_STATE 388 837, 29439),
     (SMALL_STATE 388 838, 29532), (SMALL_STATE 388 839, 29625), (SMALL_STATE 388 840, 29718),
     (SMALL_STATE 388 841, 29811), (SMALL_STATE 388 842, 29904), (SMALL_STATE 388 843, 29997),
     (SMALL_STATE 388 844, 30090), (SMALL_STATE 388 845, 30183), (SMALL_STATE 388 846, 30276),
     (SMALL_STATE 388 847, 30369), (SMALL_STATE 388 848, 30462), (SMALL_STATE 388 849, 30555),
     (SMALL_STATE 388 850, 30644), (SMALL_STATE 388 851, 30737), (SMALL_STATE 388 852, 30830),
     (SMALL_STATE 388 853, 30919), (SMALL_STATE 388 854, 31012), (SMALL_STATE 388 855, 31105),
     (SMALL_STATE 388 856, 31156), (SMALL_STATE 388 857, 31245), (SMALL_STATE 388 858, 31296),
     (SMALL_STATE 388 859, 31347), (SMALL_STATE 388 860, 31398), (SMALL_STATE 388 861, 31485),
     (SMALL_STATE 388 862, 31578), (SMALL_STATE 388 863, 31671), (SMALL_STATE 388 864, 31764),
     (SMALL_STATE 388 865, 31857), (SMALL_STATE 388 866, 31950), (SMALL_STATE 388 867, 32043)]"

definition mozjs_small_map_8 :: "(nat \<times> nat) list" where
  "mozjs_small_map_8 =
    [(SMALL_STATE 388 868, 32136), (SMALL_STATE 388 869, 32223), (SMALL_STATE 388 870, 32316),
     (SMALL_STATE 388 871, 32409), (SMALL_STATE 388 872, 32496), (SMALL_STATE 388 873, 32589),
     (SMALL_STATE 388 874, 32676), (SMALL_STATE 388 875, 32769), (SMALL_STATE 388 876, 32856),
     (SMALL_STATE 388 877, 32949), (SMALL_STATE 388 878, 33042), (SMALL_STATE 388 879, 33135),
     (SMALL_STATE 388 880, 33228), (SMALL_STATE 388 881, 33321), (SMALL_STATE 388 882, 33414),
     (SMALL_STATE 388 883, 33507), (SMALL_STATE 388 884, 33600), (SMALL_STATE 388 885, 33693),
     (SMALL_STATE 388 886, 33786), (SMALL_STATE 388 887, 33879), (SMALL_STATE 388 888, 33972),
     (SMALL_STATE 388 889, 34065), (SMALL_STATE 388 890, 34158), (SMALL_STATE 388 891, 34251),
     (SMALL_STATE 388 892, 34344), (SMALL_STATE 388 893, 34432), (SMALL_STATE 388 894, 34510),
     (SMALL_STATE 388 895, 34590), (SMALL_STATE 388 896, 34652), (SMALL_STATE 388 897, 34710),
     (SMALL_STATE 388 898, 34782), (SMALL_STATE 388 899, 34866), (SMALL_STATE 388 900, 34954),
     (SMALL_STATE 388 901, 35042), (SMALL_STATE 388 902, 35130), (SMALL_STATE 388 903, 35218),
     (SMALL_STATE 388 904, 35306), (SMALL_STATE 388 905, 35394), (SMALL_STATE 388 906, 35482),
     (SMALL_STATE 388 907, 35570), (SMALL_STATE 388 908, 35616), (SMALL_STATE 388 909, 35706),
     (SMALL_STATE 388 910, 35794), (SMALL_STATE 388 911, 35882), (SMALL_STATE 388 912, 35970),
     (SMALL_STATE 388 913, 36016), (SMALL_STATE 388 914, 36104), (SMALL_STATE 388 915, 36192),
     (SMALL_STATE 388 916, 36280), (SMALL_STATE 388 917, 36368), (SMALL_STATE 388 918, 36456),
     (SMALL_STATE 388 919, 36544), (SMALL_STATE 388 920, 36632), (SMALL_STATE 388 921, 36720),
     (SMALL_STATE 388 922, 36808), (SMALL_STATE 388 923, 36876), (SMALL_STATE 388 924, 36934),
     (SMALL_STATE 388 925, 37014), (SMALL_STATE 388 926, 37096), (SMALL_STATE 388 927, 37160)]"

definition mozjs_small_map_9 :: "(nat \<times> nat) list" where
  "mozjs_small_map_9 =
    [(SMALL_STATE 388 928, 37236), (SMALL_STATE 388 929, 37314), (SMALL_STATE 388 930, 37390),
     (SMALL_STATE 388 931, 37452), (SMALL_STATE 388 932, 37510), (SMALL_STATE 388 933, 37582),
     (SMALL_STATE 388 934, 37666), (SMALL_STATE 388 935, 37754), (SMALL_STATE 388 936, 37842),
     (SMALL_STATE 388 937, 37930), (SMALL_STATE 388 938, 38018), (SMALL_STATE 388 939, 38106),
     (SMALL_STATE 388 940, 38194), (SMALL_STATE 388 941, 38282), (SMALL_STATE 388 942, 38350),
     (SMALL_STATE 388 943, 38438), (SMALL_STATE 388 944, 38526), (SMALL_STATE 388 945, 38614),
     (SMALL_STATE 388 946, 38702), (SMALL_STATE 388 947, 38790), (SMALL_STATE 388 948, 38858),
     (SMALL_STATE 388 949, 38916), (SMALL_STATE 388 950, 38996), (SMALL_STATE 388 951, 39078),
     (SMALL_STATE 388 952, 39142), (SMALL_STATE 388 953, 39218), (SMALL_STATE 388 954, 39296),
     (SMALL_STATE 388 955, 39376), (SMALL_STATE 388 956, 39438), (SMALL_STATE 388 957, 39496),
     (SMALL_STATE 388 958, 39568), (SMALL_STATE 388 959, 39652), (SMALL_STATE 388 960, 39740),
     (SMALL_STATE 388 961, 39828), (SMALL_STATE 388 962, 39916), (SMALL_STATE 388 963, 39974),
     (SMALL_STATE 388 964, 40062), (SMALL_STATE 388 965, 40150), (SMALL_STATE 388 966, 40200),
     (SMALL_STATE 388 967, 40280), (SMALL_STATE 388 968, 40362), (SMALL_STATE 388 969, 40450),
     (SMALL_STATE 388 970, 40496), (SMALL_STATE 388 971, 40584), (SMALL_STATE 388 972, 40648),
     (SMALL_STATE 388 973, 40728), (SMALL_STATE 388 974, 40815), (SMALL_STATE 388 975, 40902),
     (SMALL_STATE 388 976, 40991), (SMALL_STATE 388 977, 41070), (SMALL_STATE 388 978, 41157),
     (SMALL_STATE 388 979, 41244), (SMALL_STATE 388 980, 41331), (SMALL_STATE 388 981, 41418),
     (SMALL_STATE 388 982, 41505), (SMALL_STATE 388 983, 41592), (SMALL_STATE 388 984, 41679),
     (SMALL_STATE 388 985, 41763), (SMALL_STATE 388 986, 41847), (SMALL_STATE 388 987, 41918)]"

definition mozjs_small_map_10 :: "(nat \<times> nat) list" where
  "mozjs_small_map_10 =
    [(SMALL_STATE 388 988, 41990), (SMALL_STATE 388 989, 42062), (SMALL_STATE 388 990, 42120),
     (SMALL_STATE 388 991, 42192), (SMALL_STATE 388 992, 42264), (SMALL_STATE 388 993, 42336),
     (SMALL_STATE 388 994, 42408), (SMALL_STATE 388 995, 42480), (SMALL_STATE 388 996, 42538),
     (SMALL_STATE 388 997, 42604), (SMALL_STATE 388 998, 42657), (SMALL_STATE 388 999, 42714),
     (SMALL_STATE 388 1000, 42771), (SMALL_STATE 388 1001, 42830), (SMALL_STATE 388 1002, 42887),
     (SMALL_STATE 388 1003, 42946), (SMALL_STATE 388 1004, 43003), (SMALL_STATE 388 1005, 43062),
     (SMALL_STATE 388 1006, 43119), (SMALL_STATE 388 1007, 43178), (SMALL_STATE 388 1008, 43235),
     (SMALL_STATE 388 1009, 43294), (SMALL_STATE 388 1010, 43353), (SMALL_STATE 388 1011, 43405),
     (SMALL_STATE 388 1012, 43457), (SMALL_STATE 388 1013, 43509), (SMALL_STATE 388 1014, 43563),
     (SMALL_STATE 388 1015, 43615), (SMALL_STATE 388 1016, 43667), (SMALL_STATE 388 1017, 43719),
     (SMALL_STATE 388 1018, 43772), (SMALL_STATE 388 1019, 43823), (SMALL_STATE 388 1020, 43874),
     (SMALL_STATE 388 1021, 43923), (SMALL_STATE 388 1022, 43984), (SMALL_STATE 388 1023, 44030),
     (SMALL_STATE 388 1024, 44086), (SMALL_STATE 388 1025, 44134), (SMALL_STATE 388 1026, 44178),
     (SMALL_STATE 388 1027, 44224), (SMALL_STATE 388 1028, 44270), (SMALL_STATE 388 1029, 44316),
     (SMALL_STATE 388 1030, 44360), (SMALL_STATE 388 1031, 44416), (SMALL_STATE 388 1032, 44464),
     (SMALL_STATE 388 1033, 44508), (SMALL_STATE 388 1034, 44547), (SMALL_STATE 388 1035, 44582),
     (SMALL_STATE 388 1036, 44621), (SMALL_STATE 388 1037, 44660), (SMALL_STATE 388 1038, 44699),
     (SMALL_STATE 388 1039, 44740), (SMALL_STATE 388 1040, 44793), (SMALL_STATE 388 1041, 44832),
     (SMALL_STATE 388 1042, 44871), (SMALL_STATE 388 1043, 44899), (SMALL_STATE 388 1044, 44927),
     (SMALL_STATE 388 1045, 44955), (SMALL_STATE 388 1046, 45005), (SMALL_STATE 388 1047, 45033)]"

definition mozjs_small_map_11 :: "(nat \<times> nat) list" where
  "mozjs_small_map_11 =
    [(SMALL_STATE 388 1048, 45061), (SMALL_STATE 388 1049, 45089), (SMALL_STATE 388 1050, 45117),
     (SMALL_STATE 388 1051, 45151), (SMALL_STATE 388 1052, 45179), (SMALL_STATE 388 1053, 45209),
     (SMALL_STATE 388 1054, 45237), (SMALL_STATE 388 1055, 45265), (SMALL_STATE 388 1056, 45293),
     (SMALL_STATE 388 1057, 45321), (SMALL_STATE 388 1058, 45351), (SMALL_STATE 388 1059, 45379),
     (SMALL_STATE 388 1060, 45407), (SMALL_STATE 388 1061, 45435), (SMALL_STATE 388 1062, 45463),
     (SMALL_STATE 388 1063, 45491), (SMALL_STATE 388 1064, 45541), (SMALL_STATE 388 1065, 45569),
     (SMALL_STATE 388 1066, 45597), (SMALL_STATE 388 1067, 45625), (SMALL_STATE 388 1068, 45653),
     (SMALL_STATE 388 1069, 45681), (SMALL_STATE 388 1070, 45709), (SMALL_STATE 388 1071, 45737),
     (SMALL_STATE 388 1072, 45765), (SMALL_STATE 388 1073, 45793), (SMALL_STATE 388 1074, 45821),
     (SMALL_STATE 388 1075, 45849), (SMALL_STATE 388 1076, 45877), (SMALL_STATE 388 1077, 45920),
     (SMALL_STATE 388 1078, 45947), (SMALL_STATE 388 1079, 45988), (SMALL_STATE 388 1080, 46029),
     (SMALL_STATE 388 1081, 46056), (SMALL_STATE 388 1082, 46099), (SMALL_STATE 388 1083, 46142),
     (SMALL_STATE 388 1084, 46187), (SMALL_STATE 388 1085, 46214), (SMALL_STATE 388 1086, 46241),
     (SMALL_STATE 388 1087, 46284), (SMALL_STATE 388 1088, 46311), (SMALL_STATE 388 1089, 46338),
     (SMALL_STATE 388 1090, 46367), (SMALL_STATE 388 1091, 46406), (SMALL_STATE 388 1092, 46442),
     (SMALL_STATE 388 1093, 46478), (SMALL_STATE 388 1094, 46514), (SMALL_STATE 388 1095, 46550),
     (SMALL_STATE 388 1096, 46586), (SMALL_STATE 388 1097, 46612), (SMALL_STATE 388 1098, 46648),
     (SMALL_STATE 388 1099, 46684), (SMALL_STATE 388 1100, 46720), (SMALL_STATE 388 1101, 46756),
     (SMALL_STATE 388 1102, 46792), (SMALL_STATE 388 1103, 46828), (SMALL_STATE 388 1104, 46870),
     (SMALL_STATE 388 1105, 46906), (SMALL_STATE 388 1106, 46942), (SMALL_STATE 388 1107, 46978)]"

definition mozjs_small_map_12 :: "(nat \<times> nat) list" where
  "mozjs_small_map_12 =
    [(SMALL_STATE 388 1108, 47018), (SMALL_STATE 388 1109, 47044), (SMALL_STATE 388 1110, 47070),
     (SMALL_STATE 388 1111, 47096), (SMALL_STATE 388 1112, 47122), (SMALL_STATE 388 1113, 47148),
     (SMALL_STATE 388 1114, 47188), (SMALL_STATE 388 1115, 47224), (SMALL_STATE 388 1116, 47266),
     (SMALL_STATE 388 1117, 47302), (SMALL_STATE 388 1118, 47338), (SMALL_STATE 388 1119, 47374),
     (SMALL_STATE 388 1120, 47410), (SMALL_STATE 388 1121, 47446), (SMALL_STATE 388 1122, 47482),
     (SMALL_STATE 388 1123, 47518), (SMALL_STATE 388 1124, 47554), (SMALL_STATE 388 1125, 47590),
     (SMALL_STATE 388 1126, 47623), (SMALL_STATE 388 1127, 47656), (SMALL_STATE 388 1128, 47689),
     (SMALL_STATE 388 1129, 47722), (SMALL_STATE 388 1130, 47755), (SMALL_STATE 388 1131, 47788),
     (SMALL_STATE 388 1132, 47821), (SMALL_STATE 388 1133, 47854), (SMALL_STATE 388 1134, 47887),
     (SMALL_STATE 388 1135, 47920), (SMALL_STATE 388 1136, 47953), (SMALL_STATE 388 1137, 47986),
     (SMALL_STATE 388 1138, 48019), (SMALL_STATE 388 1139, 48052), (SMALL_STATE 388 1140, 48085),
     (SMALL_STATE 388 1141, 48118), (SMALL_STATE 388 1142, 48151), (SMALL_STATE 388 1143, 48184),
     (SMALL_STATE 388 1144, 48206), (SMALL_STATE 388 1145, 48228), (SMALL_STATE 388 1146, 48250),
     (SMALL_STATE 388 1147, 48272), (SMALL_STATE 388 1148, 48294), (SMALL_STATE 388 1149, 48316),
     (SMALL_STATE 388 1150, 48353), (SMALL_STATE 388 1151, 48389), (SMALL_STATE 388 1152, 48425),
     (SMALL_STATE 388 1153, 48455), (SMALL_STATE 388 1154, 48485), (SMALL_STATE 388 1155, 48515),
     (SMALL_STATE 388 1156, 48551), (SMALL_STATE 388 1157, 48581), (SMALL_STATE 388 1158, 48611),
     (SMALL_STATE 388 1159, 48641), (SMALL_STATE 388 1160, 48677), (SMALL_STATE 388 1161, 48707),
     (SMALL_STATE 388 1162, 48737), (SMALL_STATE 388 1163, 48770), (SMALL_STATE 388 1164, 48803),
     (SMALL_STATE 388 1165, 48836), (SMALL_STATE 388 1166, 48869), (SMALL_STATE 388 1167, 48902)]"

definition mozjs_small_map_13 :: "(nat \<times> nat) list" where
  "mozjs_small_map_13 =
    [(SMALL_STATE 388 1168, 48929), (SMALL_STATE 388 1169, 48962), (SMALL_STATE 388 1170, 48995),
     (SMALL_STATE 388 1171, 49028), (SMALL_STATE 388 1172, 49058), (SMALL_STATE 388 1173, 49086),
     (SMALL_STATE 388 1174, 49116), (SMALL_STATE 388 1175, 49146), (SMALL_STATE 388 1176, 49176),
     (SMALL_STATE 388 1177, 49206), (SMALL_STATE 388 1178, 49236), (SMALL_STATE 388 1179, 49266),
     (SMALL_STATE 388 1180, 49292), (SMALL_STATE 388 1181, 49322), (SMALL_STATE 388 1182, 49352),
     (SMALL_STATE 388 1183, 49382), (SMALL_STATE 388 1184, 49410), (SMALL_STATE 388 1185, 49440),
     (SMALL_STATE 388 1186, 49470), (SMALL_STATE 388 1187, 49500), (SMALL_STATE 388 1188, 49530),
     (SMALL_STATE 388 1189, 49560), (SMALL_STATE 388 1190, 49590), (SMALL_STATE 388 1191, 49620),
     (SMALL_STATE 388 1192, 49650), (SMALL_STATE 388 1193, 49680), (SMALL_STATE 388 1194, 49710),
     (SMALL_STATE 388 1195, 49736), (SMALL_STATE 388 1196, 49766), (SMALL_STATE 388 1197, 49791),
     (SMALL_STATE 388 1198, 49818), (SMALL_STATE 388 1199, 49843), (SMALL_STATE 388 1200, 49868),
     (SMALL_STATE 388 1201, 49893), (SMALL_STATE 388 1202, 49918), (SMALL_STATE 388 1203, 49943),
     (SMALL_STATE 388 1204, 49968), (SMALL_STATE 388 1205, 49995), (SMALL_STATE 388 1206, 50020),
     (SMALL_STATE 388 1207, 50045), (SMALL_STATE 388 1208, 50067), (SMALL_STATE 388 1209, 50085),
     (SMALL_STATE 388 1210, 50109), (SMALL_STATE 388 1211, 50131), (SMALL_STATE 388 1212, 50153),
     (SMALL_STATE 388 1213, 50175), (SMALL_STATE 388 1214, 50189), (SMALL_STATE 388 1215, 50209),
     (SMALL_STATE 388 1216, 50229), (SMALL_STATE 388 1217, 50243), (SMALL_STATE 388 1218, 50257),
     (SMALL_STATE 388 1219, 50277), (SMALL_STATE 388 1220, 50301), (SMALL_STATE 388 1221, 50323),
     (SMALL_STATE 388 1222, 50345), (SMALL_STATE 388 1223, 50363), (SMALL_STATE 388 1224, 50387),
     (SMALL_STATE 388 1225, 50401), (SMALL_STATE 388 1226, 50425), (SMALL_STATE 388 1227, 50449)]"

definition mozjs_small_map_14 :: "(nat \<times> nat) list" where
  "mozjs_small_map_14 =
    [(SMALL_STATE 388 1228, 50473), (SMALL_STATE 388 1229, 50487), (SMALL_STATE 388 1230, 50511),
     (SMALL_STATE 388 1231, 50532), (SMALL_STATE 388 1232, 50549), (SMALL_STATE 388 1233, 50568),
     (SMALL_STATE 388 1234, 50581), (SMALL_STATE 388 1235, 50600), (SMALL_STATE 388 1236, 50621),
     (SMALL_STATE 388 1237, 50640), (SMALL_STATE 388 1238, 50659), (SMALL_STATE 388 1239, 50678),
     (SMALL_STATE 388 1240, 50691), (SMALL_STATE 388 1241, 50706), (SMALL_STATE 388 1242, 50721),
     (SMALL_STATE 388 1243, 50740), (SMALL_STATE 388 1244, 50753), (SMALL_STATE 388 1245, 50772),
     (SMALL_STATE 388 1246, 50793), (SMALL_STATE 388 1247, 50814), (SMALL_STATE 388 1248, 50827),
     (SMALL_STATE 388 1249, 50840), (SMALL_STATE 388 1250, 50853), (SMALL_STATE 388 1251, 50872),
     (SMALL_STATE 388 1252, 50885), (SMALL_STATE 388 1253, 50904), (SMALL_STATE 388 1254, 50923),
     (SMALL_STATE 388 1255, 50936), (SMALL_STATE 388 1256, 50955), (SMALL_STATE 388 1257, 50968),
     (SMALL_STATE 388 1258, 50981), (SMALL_STATE 388 1259, 51001), (SMALL_STATE 388 1260, 51021),
     (SMALL_STATE 388 1261, 51035), (SMALL_STATE 388 1262, 51055), (SMALL_STATE 388 1263, 51069),
     (SMALL_STATE 388 1264, 51083), (SMALL_STATE 388 1265, 51097), (SMALL_STATE 388 1266, 51117),
     (SMALL_STATE 388 1267, 51129), (SMALL_STATE 388 1268, 51143), (SMALL_STATE 388 1269, 51159),
     (SMALL_STATE 388 1270, 51173), (SMALL_STATE 388 1271, 51193), (SMALL_STATE 388 1272, 51207),
     (SMALL_STATE 388 1273, 51221), (SMALL_STATE 388 1274, 51241), (SMALL_STATE 388 1275, 51261),
     (SMALL_STATE 388 1276, 51281), (SMALL_STATE 388 1277, 51301), (SMALL_STATE 388 1278, 51315),
     (SMALL_STATE 388 1279, 51335), (SMALL_STATE 388 1280, 51351), (SMALL_STATE 388 1281, 51371),
     (SMALL_STATE 388 1282, 51389), (SMALL_STATE 388 1283, 51409), (SMALL_STATE 388 1284, 51425),
     (SMALL_STATE 388 1285, 51445), (SMALL_STATE 388 1286, 51459), (SMALL_STATE 388 1287, 51479)]"

definition mozjs_small_map_15 :: "(nat \<times> nat) list" where
  "mozjs_small_map_15 =
    [(SMALL_STATE 388 1288, 51493), (SMALL_STATE 388 1289, 51509), (SMALL_STATE 388 1290, 51525),
     (SMALL_STATE 388 1291, 51545), (SMALL_STATE 388 1292, 51565), (SMALL_STATE 388 1293, 51579),
     (SMALL_STATE 388 1294, 51593), (SMALL_STATE 388 1295, 51605), (SMALL_STATE 388 1296, 51619),
     (SMALL_STATE 388 1297, 51633), (SMALL_STATE 388 1298, 51647), (SMALL_STATE 388 1299, 51661),
     (SMALL_STATE 388 1300, 51675), (SMALL_STATE 388 1301, 51689), (SMALL_STATE 388 1302, 51703),
     (SMALL_STATE 388 1303, 51717), (SMALL_STATE 388 1304, 51731), (SMALL_STATE 388 1305, 51745),
     (SMALL_STATE 388 1306, 51765), (SMALL_STATE 388 1307, 51785), (SMALL_STATE 388 1308, 51799),
     (SMALL_STATE 388 1309, 51819), (SMALL_STATE 388 1310, 51833), (SMALL_STATE 388 1311, 51847),
     (SMALL_STATE 388 1312, 51861), (SMALL_STATE 388 1313, 51881), (SMALL_STATE 388 1314, 51895),
     (SMALL_STATE 388 1315, 51909), (SMALL_STATE 388 1316, 51923), (SMALL_STATE 388 1317, 51937),
     (SMALL_STATE 388 1318, 51951), (SMALL_STATE 388 1319, 51965), (SMALL_STATE 388 1320, 51979),
     (SMALL_STATE 388 1321, 51993), (SMALL_STATE 388 1322, 52007), (SMALL_STATE 388 1323, 52027),
     (SMALL_STATE 388 1324, 52039), (SMALL_STATE 388 1325, 52059), (SMALL_STATE 388 1326, 52076),
     (SMALL_STATE 388 1327, 52093), (SMALL_STATE 388 1328, 52110), (SMALL_STATE 388 1329, 52127),
     (SMALL_STATE 388 1330, 52144), (SMALL_STATE 388 1331, 52159), (SMALL_STATE 388 1332, 52176),
     (SMALL_STATE 388 1333, 52193), (SMALL_STATE 388 1334, 52210), (SMALL_STATE 388 1335, 52225),
     (SMALL_STATE 388 1336, 52242), (SMALL_STATE 388 1337, 52257), (SMALL_STATE 388 1338, 52272),
     (SMALL_STATE 388 1339, 52289), (SMALL_STATE 388 1340, 52304), (SMALL_STATE 388 1341, 52321),
     (SMALL_STATE 388 1342, 52338), (SMALL_STATE 388 1343, 52355), (SMALL_STATE 388 1344, 52372),
     (SMALL_STATE 388 1345, 52387), (SMALL_STATE 388 1346, 52402), (SMALL_STATE 388 1347, 52419)]"

definition mozjs_small_map_16 :: "(nat \<times> nat) list" where
  "mozjs_small_map_16 =
    [(SMALL_STATE 388 1348, 52438), (SMALL_STATE 388 1349, 52457), (SMALL_STATE 388 1350, 52468),
     (SMALL_STATE 388 1351, 52483), (SMALL_STATE 388 1352, 52498), (SMALL_STATE 388 1353, 52511),
     (SMALL_STATE 388 1354, 52528), (SMALL_STATE 388 1355, 52545), (SMALL_STATE 388 1356, 52562),
     (SMALL_STATE 388 1357, 52579), (SMALL_STATE 388 1358, 52598), (SMALL_STATE 388 1359, 52617),
     (SMALL_STATE 388 1360, 52636), (SMALL_STATE 388 1361, 52653), (SMALL_STATE 388 1362, 52670),
     (SMALL_STATE 388 1363, 52685), (SMALL_STATE 388 1364, 52702), (SMALL_STATE 388 1365, 52719),
     (SMALL_STATE 388 1366, 52736), (SMALL_STATE 388 1367, 52751), (SMALL_STATE 388 1368, 52766),
     (SMALL_STATE 388 1369, 52785), (SMALL_STATE 388 1370, 52800), (SMALL_STATE 388 1371, 52817),
     (SMALL_STATE 388 1372, 52832), (SMALL_STATE 388 1373, 52849), (SMALL_STATE 388 1374, 52866),
     (SMALL_STATE 388 1375, 52881), (SMALL_STATE 388 1376, 52898), (SMALL_STATE 388 1377, 52915),
     (SMALL_STATE 388 1378, 52926), (SMALL_STATE 388 1379, 52941), (SMALL_STATE 388 1380, 52958),
     (SMALL_STATE 388 1381, 52975), (SMALL_STATE 388 1382, 52992), (SMALL_STATE 388 1383, 53009),
     (SMALL_STATE 388 1384, 53026), (SMALL_STATE 388 1385, 53041), (SMALL_STATE 388 1386, 53058),
     (SMALL_STATE 388 1387, 53075), (SMALL_STATE 388 1388, 53086), (SMALL_STATE 388 1389, 53097),
     (SMALL_STATE 388 1390, 53108), (SMALL_STATE 388 1391, 53125), (SMALL_STATE 388 1392, 53140),
     (SMALL_STATE 388 1393, 53157), (SMALL_STATE 388 1394, 53172), (SMALL_STATE 388 1395, 53189),
     (SMALL_STATE 388 1396, 53206), (SMALL_STATE 388 1397, 53221), (SMALL_STATE 388 1398, 53238),
     (SMALL_STATE 388 1399, 53255), (SMALL_STATE 388 1400, 53266), (SMALL_STATE 388 1401, 53281),
     (SMALL_STATE 388 1402, 53294), (SMALL_STATE 388 1403, 53311), (SMALL_STATE 388 1404, 53328),
     (SMALL_STATE 388 1405, 53345), (SMALL_STATE 388 1406, 53362), (SMALL_STATE 388 1407, 53377)]"

definition mozjs_small_map_17 :: "(nat \<times> nat) list" where
  "mozjs_small_map_17 =
    [(SMALL_STATE 388 1408, 53394), (SMALL_STATE 388 1409, 53408), (SMALL_STATE 388 1410, 53420),
     (SMALL_STATE 388 1411, 53434), (SMALL_STATE 388 1412, 53448), (SMALL_STATE 388 1413, 53462),
     (SMALL_STATE 388 1414, 53476), (SMALL_STATE 388 1415, 53490), (SMALL_STATE 388 1416, 53504),
     (SMALL_STATE 388 1417, 53518), (SMALL_STATE 388 1418, 53530), (SMALL_STATE 388 1419, 53544),
     (SMALL_STATE 388 1420, 53558), (SMALL_STATE 388 1421, 53572), (SMALL_STATE 388 1422, 53584),
     (SMALL_STATE 388 1423, 53598), (SMALL_STATE 388 1424, 53612), (SMALL_STATE 388 1425, 53626),
     (SMALL_STATE 388 1426, 53640), (SMALL_STATE 388 1427, 53654), (SMALL_STATE 388 1428, 53668),
     (SMALL_STATE 388 1429, 53682), (SMALL_STATE 388 1430, 53696), (SMALL_STATE 388 1431, 53710),
     (SMALL_STATE 388 1432, 53724), (SMALL_STATE 388 1433, 53738), (SMALL_STATE 388 1434, 53752),
     (SMALL_STATE 388 1435, 53766), (SMALL_STATE 388 1436, 53780), (SMALL_STATE 388 1437, 53794),
     (SMALL_STATE 388 1438, 53808), (SMALL_STATE 388 1439, 53822), (SMALL_STATE 388 1440, 53836),
     (SMALL_STATE 388 1441, 53850), (SMALL_STATE 388 1442, 53864), (SMALL_STATE 388 1443, 53878),
     (SMALL_STATE 388 1444, 53892), (SMALL_STATE 388 1445, 53906), (SMALL_STATE 388 1446, 53916),
     (SMALL_STATE 388 1447, 53930), (SMALL_STATE 388 1448, 53942), (SMALL_STATE 388 1449, 53952),
     (SMALL_STATE 388 1450, 53966), (SMALL_STATE 388 1451, 53980), (SMALL_STATE 388 1452, 53994),
     (SMALL_STATE 388 1453, 54008), (SMALL_STATE 388 1454, 54022), (SMALL_STATE 388 1455, 54032),
     (SMALL_STATE 388 1456, 54046), (SMALL_STATE 388 1457, 54060), (SMALL_STATE 388 1458, 54070),
     (SMALL_STATE 388 1459, 54080), (SMALL_STATE 388 1460, 54094), (SMALL_STATE 388 1461, 54108),
     (SMALL_STATE 388 1462, 54122), (SMALL_STATE 388 1463, 54136), (SMALL_STATE 388 1464, 54150),
     (SMALL_STATE 388 1465, 54164), (SMALL_STATE 388 1466, 54178), (SMALL_STATE 388 1467, 54192)]"

definition mozjs_small_map_18 :: "(nat \<times> nat) list" where
  "mozjs_small_map_18 =
    [(SMALL_STATE 388 1468, 54206), (SMALL_STATE 388 1469, 54220), (SMALL_STATE 388 1470, 54234),
     (SMALL_STATE 388 1471, 54248), (SMALL_STATE 388 1472, 54262), (SMALL_STATE 388 1473, 54272),
     (SMALL_STATE 388 1474, 54284), (SMALL_STATE 388 1475, 54296), (SMALL_STATE 388 1476, 54310),
     (SMALL_STATE 388 1477, 54322), (SMALL_STATE 388 1478, 54336), (SMALL_STATE 388 1479, 54350),
     (SMALL_STATE 388 1480, 54362), (SMALL_STATE 388 1481, 54376), (SMALL_STATE 388 1482, 54390),
     (SMALL_STATE 388 1483, 54404), (SMALL_STATE 388 1484, 54418), (SMALL_STATE 388 1485, 54432),
     (SMALL_STATE 388 1486, 54446), (SMALL_STATE 388 1487, 54460), (SMALL_STATE 388 1488, 54472),
     (SMALL_STATE 388 1489, 54486), (SMALL_STATE 388 1490, 54496), (SMALL_STATE 388 1491, 54506),
     (SMALL_STATE 388 1492, 54518), (SMALL_STATE 388 1493, 54532), (SMALL_STATE 388 1494, 54544),
     (SMALL_STATE 388 1495, 54556), (SMALL_STATE 388 1496, 54570), (SMALL_STATE 388 1497, 54582),
     (SMALL_STATE 388 1498, 54596), (SMALL_STATE 388 1499, 54610), (SMALL_STATE 388 1500, 54624),
     (SMALL_STATE 388 1501, 54638), (SMALL_STATE 388 1502, 54650), (SMALL_STATE 388 1503, 54664),
     (SMALL_STATE 388 1504, 54676), (SMALL_STATE 388 1505, 54690), (SMALL_STATE 388 1506, 54702),
     (SMALL_STATE 388 1507, 54716), (SMALL_STATE 388 1508, 54726), (SMALL_STATE 388 1509, 54740),
     (SMALL_STATE 388 1510, 54751), (SMALL_STATE 388 1511, 54760), (SMALL_STATE 388 1512, 54771),
     (SMALL_STATE 388 1513, 54782), (SMALL_STATE 388 1514, 54793), (SMALL_STATE 388 1515, 54804),
     (SMALL_STATE 388 1516, 54813), (SMALL_STATE 388 1517, 54824), (SMALL_STATE 388 1518, 54835),
     (SMALL_STATE 388 1519, 54846), (SMALL_STATE 388 1520, 54857), (SMALL_STATE 388 1521, 54868),
     (SMALL_STATE 388 1522, 54879), (SMALL_STATE 388 1523, 54890), (SMALL_STATE 388 1524, 54901),
     (SMALL_STATE 388 1525, 54912), (SMALL_STATE 388 1526, 54923), (SMALL_STATE 388 1527, 54934)]"

definition mozjs_small_map_19 :: "(nat \<times> nat) list" where
  "mozjs_small_map_19 =
    [(SMALL_STATE 388 1528, 54945), (SMALL_STATE 388 1529, 54956), (SMALL_STATE 388 1530, 54967),
     (SMALL_STATE 388 1531, 54978), (SMALL_STATE 388 1532, 54989), (SMALL_STATE 388 1533, 55000),
     (SMALL_STATE 388 1534, 55009), (SMALL_STATE 388 1535, 55018), (SMALL_STATE 388 1536, 55029),
     (SMALL_STATE 388 1537, 55040), (SMALL_STATE 388 1538, 55051), (SMALL_STATE 388 1539, 55060),
     (SMALL_STATE 388 1540, 55071), (SMALL_STATE 388 1541, 55082), (SMALL_STATE 388 1542, 55091),
     (SMALL_STATE 388 1543, 55102), (SMALL_STATE 388 1544, 55113), (SMALL_STATE 388 1545, 55124),
     (SMALL_STATE 388 1546, 55135), (SMALL_STATE 388 1547, 55146), (SMALL_STATE 388 1548, 55155),
     (SMALL_STATE 388 1549, 55166), (SMALL_STATE 388 1550, 55177), (SMALL_STATE 388 1551, 55188),
     (SMALL_STATE 388 1552, 55199), (SMALL_STATE 388 1553, 55210), (SMALL_STATE 388 1554, 55221),
     (SMALL_STATE 388 1555, 55232), (SMALL_STATE 388 1556, 55243), (SMALL_STATE 388 1557, 55254),
     (SMALL_STATE 388 1558, 55265), (SMALL_STATE 388 1559, 55274), (SMALL_STATE 388 1560, 55285),
     (SMALL_STATE 388 1561, 55296), (SMALL_STATE 388 1562, 55307), (SMALL_STATE 388 1563, 55318),
     (SMALL_STATE 388 1564, 55329), (SMALL_STATE 388 1565, 55338), (SMALL_STATE 388 1566, 55349),
     (SMALL_STATE 388 1567, 55360), (SMALL_STATE 388 1568, 55371), (SMALL_STATE 388 1569, 55382),
     (SMALL_STATE 388 1570, 55393), (SMALL_STATE 388 1571, 55404), (SMALL_STATE 388 1572, 55415),
     (SMALL_STATE 388 1573, 55426), (SMALL_STATE 388 1574, 55437), (SMALL_STATE 388 1575, 55448),
     (SMALL_STATE 388 1576, 55459), (SMALL_STATE 388 1577, 55470), (SMALL_STATE 388 1578, 55481),
     (SMALL_STATE 388 1579, 55492), (SMALL_STATE 388 1580, 55503), (SMALL_STATE 388 1581, 55512),
     (SMALL_STATE 388 1582, 55521), (SMALL_STATE 388 1583, 55532), (SMALL_STATE 388 1584, 55543),
     (SMALL_STATE 388 1585, 55554), (SMALL_STATE 388 1586, 55565), (SMALL_STATE 388 1587, 55576)]"

definition mozjs_small_map_20 :: "(nat \<times> nat) list" where
  "mozjs_small_map_20 =
    [(SMALL_STATE 388 1588, 55587), (SMALL_STATE 388 1589, 55598), (SMALL_STATE 388 1590, 55609),
     (SMALL_STATE 388 1591, 55620), (SMALL_STATE 388 1592, 55631), (SMALL_STATE 388 1593, 55642),
     (SMALL_STATE 388 1594, 55653), (SMALL_STATE 388 1595, 55664), (SMALL_STATE 388 1596, 55675),
     (SMALL_STATE 388 1597, 55686), (SMALL_STATE 388 1598, 55697), (SMALL_STATE 388 1599, 55708),
     (SMALL_STATE 388 1600, 55719), (SMALL_STATE 388 1601, 55730), (SMALL_STATE 388 1602, 55741),
     (SMALL_STATE 388 1603, 55752), (SMALL_STATE 388 1604, 55763), (SMALL_STATE 388 1605, 55774),
     (SMALL_STATE 388 1606, 55785), (SMALL_STATE 388 1607, 55796), (SMALL_STATE 388 1608, 55807),
     (SMALL_STATE 388 1609, 55818), (SMALL_STATE 388 1610, 55827), (SMALL_STATE 388 1611, 55838),
     (SMALL_STATE 388 1612, 55849), (SMALL_STATE 388 1613, 55860), (SMALL_STATE 388 1614, 55871),
     (SMALL_STATE 388 1615, 55882), (SMALL_STATE 388 1616, 55893), (SMALL_STATE 388 1617, 55904),
     (SMALL_STATE 388 1618, 55915), (SMALL_STATE 388 1619, 55926), (SMALL_STATE 388 1620, 55935),
     (SMALL_STATE 388 1621, 55946), (SMALL_STATE 388 1622, 55957), (SMALL_STATE 388 1623, 55968),
     (SMALL_STATE 388 1624, 55979), (SMALL_STATE 388 1625, 55990), (SMALL_STATE 388 1626, 56001),
     (SMALL_STATE 388 1627, 56012), (SMALL_STATE 388 1628, 56023), (SMALL_STATE 388 1629, 56034),
     (SMALL_STATE 388 1630, 56045), (SMALL_STATE 388 1631, 56056), (SMALL_STATE 388 1632, 56067),
     (SMALL_STATE 388 1633, 56078), (SMALL_STATE 388 1634, 56089), (SMALL_STATE 388 1635, 56100),
     (SMALL_STATE 388 1636, 56111), (SMALL_STATE 388 1637, 56122), (SMALL_STATE 388 1638, 56133),
     (SMALL_STATE 388 1639, 56144), (SMALL_STATE 388 1640, 56153), (SMALL_STATE 388 1641, 56162),
     (SMALL_STATE 388 1642, 56173), (SMALL_STATE 388 1643, 56184), (SMALL_STATE 388 1644, 56195),
     (SMALL_STATE 388 1645, 56206), (SMALL_STATE 388 1646, 56217), (SMALL_STATE 388 1647, 56226)]"

definition mozjs_small_map_21 :: "(nat \<times> nat) list" where
  "mozjs_small_map_21 =
    [(SMALL_STATE 388 1648, 56237), (SMALL_STATE 388 1649, 56248), (SMALL_STATE 388 1650, 56259),
     (SMALL_STATE 388 1651, 56270), (SMALL_STATE 388 1652, 56279), (SMALL_STATE 388 1653, 56290),
     (SMALL_STATE 388 1654, 56301), (SMALL_STATE 388 1655, 56312), (SMALL_STATE 388 1656, 56323),
     (SMALL_STATE 388 1657, 56334), (SMALL_STATE 388 1658, 56345), (SMALL_STATE 388 1659, 56356),
     (SMALL_STATE 388 1660, 56365), (SMALL_STATE 388 1661, 56376), (SMALL_STATE 388 1662, 56385),
     (SMALL_STATE 388 1663, 56396), (SMALL_STATE 388 1664, 56407), (SMALL_STATE 388 1665, 56418),
     (SMALL_STATE 388 1666, 56429), (SMALL_STATE 388 1667, 56438), (SMALL_STATE 388 1668, 56447),
     (SMALL_STATE 388 1669, 56456), (SMALL_STATE 388 1670, 56465), (SMALL_STATE 388 1671, 56476),
     (SMALL_STATE 388 1672, 56487), (SMALL_STATE 388 1673, 56498), (SMALL_STATE 388 1674, 56509),
     (SMALL_STATE 388 1675, 56520), (SMALL_STATE 388 1676, 56531), (SMALL_STATE 388 1677, 56542),
     (SMALL_STATE 388 1678, 56553), (SMALL_STATE 388 1679, 56564), (SMALL_STATE 388 1680, 56575),
     (SMALL_STATE 388 1681, 56586), (SMALL_STATE 388 1682, 56597), (SMALL_STATE 388 1683, 56608),
     (SMALL_STATE 388 1684, 56619), (SMALL_STATE 388 1685, 56630), (SMALL_STATE 388 1686, 56639),
     (SMALL_STATE 388 1687, 56648), (SMALL_STATE 388 1688, 56657), (SMALL_STATE 388 1689, 56668),
     (SMALL_STATE 388 1690, 56679), (SMALL_STATE 388 1691, 56690), (SMALL_STATE 388 1692, 56701),
     (SMALL_STATE 388 1693, 56712), (SMALL_STATE 388 1694, 56723), (SMALL_STATE 388 1695, 56734),
     (SMALL_STATE 388 1696, 56745), (SMALL_STATE 388 1697, 56756), (SMALL_STATE 388 1698, 56767),
     (SMALL_STATE 388 1699, 56778), (SMALL_STATE 388 1700, 56789), (SMALL_STATE 388 1701, 56800),
     (SMALL_STATE 388 1702, 56811), (SMALL_STATE 388 1703, 56822), (SMALL_STATE 388 1704, 56833),
     (SMALL_STATE 388 1705, 56844), (SMALL_STATE 388 1706, 56855), (SMALL_STATE 388 1707, 56866)]"

definition mozjs_small_map_22 :: "(nat \<times> nat) list" where
  "mozjs_small_map_22 =
    [(SMALL_STATE 388 1708, 56877), (SMALL_STATE 388 1709, 56888), (SMALL_STATE 388 1710, 56899),
     (SMALL_STATE 388 1711, 56910), (SMALL_STATE 388 1712, 56921), (SMALL_STATE 388 1713, 56932),
     (SMALL_STATE 388 1714, 56943), (SMALL_STATE 388 1715, 56954), (SMALL_STATE 388 1716, 56965),
     (SMALL_STATE 388 1717, 56976), (SMALL_STATE 388 1718, 56987), (SMALL_STATE 388 1719, 56998),
     (SMALL_STATE 388 1720, 57007), (SMALL_STATE 388 1721, 57018), (SMALL_STATE 388 1722, 57029),
     (SMALL_STATE 388 1723, 57040), (SMALL_STATE 388 1724, 57051), (SMALL_STATE 388 1725, 57062),
     (SMALL_STATE 388 1726, 57073), (SMALL_STATE 388 1727, 57084), (SMALL_STATE 388 1728, 57095),
     (SMALL_STATE 388 1729, 57106), (SMALL_STATE 388 1730, 57117), (SMALL_STATE 388 1731, 57128),
     (SMALL_STATE 388 1732, 57139), (SMALL_STATE 388 1733, 57150), (SMALL_STATE 388 1734, 57161),
     (SMALL_STATE 388 1735, 57170), (SMALL_STATE 388 1736, 57181), (SMALL_STATE 388 1737, 57192),
     (SMALL_STATE 388 1738, 57201), (SMALL_STATE 388 1739, 57210), (SMALL_STATE 388 1740, 57221),
     (SMALL_STATE 388 1741, 57230), (SMALL_STATE 388 1742, 57241), (SMALL_STATE 388 1743, 57252),
     (SMALL_STATE 388 1744, 57261), (SMALL_STATE 388 1745, 57272), (SMALL_STATE 388 1746, 57283),
     (SMALL_STATE 388 1747, 57292), (SMALL_STATE 388 1748, 57303), (SMALL_STATE 388 1749, 57314),
     (SMALL_STATE 388 1750, 57323), (SMALL_STATE 388 1751, 57334), (SMALL_STATE 388 1752, 57345),
     (SMALL_STATE 388 1753, 57354), (SMALL_STATE 388 1754, 57365), (SMALL_STATE 388 1755, 57376),
     (SMALL_STATE 388 1756, 57387), (SMALL_STATE 388 1757, 57396), (SMALL_STATE 388 1758, 57404),
     (SMALL_STATE 388 1759, 57412), (SMALL_STATE 388 1760, 57420), (SMALL_STATE 388 1761, 57430),
     (SMALL_STATE 388 1762, 57438), (SMALL_STATE 388 1763, 57446), (SMALL_STATE 388 1764, 57454),
     (SMALL_STATE 388 1765, 57462), (SMALL_STATE 388 1766, 57470), (SMALL_STATE 388 1767, 57478)]"

definition mozjs_small_map_23 :: "(nat \<times> nat) list" where
  "mozjs_small_map_23 =
    [(SMALL_STATE 388 1768, 57486), (SMALL_STATE 388 1769, 57494), (SMALL_STATE 388 1770, 57502),
     (SMALL_STATE 388 1771, 57510), (SMALL_STATE 388 1772, 57518), (SMALL_STATE 388 1773, 57526),
     (SMALL_STATE 388 1774, 57536), (SMALL_STATE 388 1775, 57544), (SMALL_STATE 388 1776, 57552),
     (SMALL_STATE 388 1777, 57560), (SMALL_STATE 388 1778, 57568), (SMALL_STATE 388 1779, 57576),
     (SMALL_STATE 388 1780, 57584), (SMALL_STATE 388 1781, 57592), (SMALL_STATE 388 1782, 57600),
     (SMALL_STATE 388 1783, 57608), (SMALL_STATE 388 1784, 57616), (SMALL_STATE 388 1785, 57624),
     (SMALL_STATE 388 1786, 57632), (SMALL_STATE 388 1787, 57640), (SMALL_STATE 388 1788, 57648),
     (SMALL_STATE 388 1789, 57656), (SMALL_STATE 388 1790, 57664), (SMALL_STATE 388 1791, 57672),
     (SMALL_STATE 388 1792, 57680), (SMALL_STATE 388 1793, 57688), (SMALL_STATE 388 1794, 57696),
     (SMALL_STATE 388 1795, 57706), (SMALL_STATE 388 1796, 57714), (SMALL_STATE 388 1797, 57722),
     (SMALL_STATE 388 1798, 57730), (SMALL_STATE 388 1799, 57738), (SMALL_STATE 388 1800, 57746),
     (SMALL_STATE 388 1801, 57754), (SMALL_STATE 388 1802, 57764), (SMALL_STATE 388 1803, 57772),
     (SMALL_STATE 388 1804, 57780), (SMALL_STATE 388 1805, 57788), (SMALL_STATE 388 1806, 57796),
     (SMALL_STATE 388 1807, 57804), (SMALL_STATE 388 1808, 57812), (SMALL_STATE 388 1809, 57820),
     (SMALL_STATE 388 1810, 57828), (SMALL_STATE 388 1811, 57836), (SMALL_STATE 388 1812, 57844),
     (SMALL_STATE 388 1813, 57852), (SMALL_STATE 388 1814, 57860), (SMALL_STATE 388 1815, 57868),
     (SMALL_STATE 388 1816, 57876), (SMALL_STATE 388 1817, 57884), (SMALL_STATE 388 1818, 57892),
     (SMALL_STATE 388 1819, 57900), (SMALL_STATE 388 1820, 57908), (SMALL_STATE 388 1821, 57916),
     (SMALL_STATE 388 1822, 57924), (SMALL_STATE 388 1823, 57932), (SMALL_STATE 388 1824, 57942),
     (SMALL_STATE 388 1825, 57950), (SMALL_STATE 388 1826, 57958), (SMALL_STATE 388 1827, 57966)]"

definition mozjs_small_map_24 :: "(nat \<times> nat) list" where
  "mozjs_small_map_24 =
    [(SMALL_STATE 388 1828, 57974), (SMALL_STATE 388 1829, 57982), (SMALL_STATE 388 1830, 57990),
     (SMALL_STATE 388 1831, 57998), (SMALL_STATE 388 1832, 58006), (SMALL_STATE 388 1833, 58014),
     (SMALL_STATE 388 1834, 58022), (SMALL_STATE 388 1835, 58030), (SMALL_STATE 388 1836, 58040),
     (SMALL_STATE 388 1837, 58048), (SMALL_STATE 388 1838, 58056), (SMALL_STATE 388 1839, 58064),
     (SMALL_STATE 388 1840, 58072), (SMALL_STATE 388 1841, 58080), (SMALL_STATE 388 1842, 58088),
     (SMALL_STATE 388 1843, 58096), (SMALL_STATE 388 1844, 58104), (SMALL_STATE 388 1845, 58112),
     (SMALL_STATE 388 1846, 58120), (SMALL_STATE 388 1847, 58128), (SMALL_STATE 388 1848, 58136),
     (SMALL_STATE 388 1849, 58144), (SMALL_STATE 388 1850, 58152), (SMALL_STATE 388 1851, 58160),
     (SMALL_STATE 388 1852, 58168), (SMALL_STATE 388 1853, 58176), (SMALL_STATE 388 1854, 58184),
     (SMALL_STATE 388 1855, 58194), (SMALL_STATE 388 1856, 58202), (SMALL_STATE 388 1857, 58210),
     (SMALL_STATE 388 1858, 58220), (SMALL_STATE 388 1859, 58228), (SMALL_STATE 388 1860, 58236),
     (SMALL_STATE 388 1861, 58244), (SMALL_STATE 388 1862, 58252), (SMALL_STATE 388 1863, 58260),
     (SMALL_STATE 388 1864, 58268), (SMALL_STATE 388 1865, 58276), (SMALL_STATE 388 1866, 58284),
     (SMALL_STATE 388 1867, 58292), (SMALL_STATE 388 1868, 58300), (SMALL_STATE 388 1869, 58308),
     (SMALL_STATE 388 1870, 58316), (SMALL_STATE 388 1871, 58324), (SMALL_STATE 388 1872, 58332),
     (SMALL_STATE 388 1873, 58340), (SMALL_STATE 388 1874, 58348), (SMALL_STATE 388 1875, 58356),
     (SMALL_STATE 388 1876, 58364), (SMALL_STATE 388 1877, 58372), (SMALL_STATE 388 1878, 58380)]"

definition mozjs_ts_small_parse_table_map :: "(nat \<times> nat) list" where
  "mozjs_ts_small_parse_table_map = mozjs_small_map_0 @ mozjs_small_map_1 @ mozjs_small_map_2 @
    mozjs_small_map_3 @ mozjs_small_map_4 @ mozjs_small_map_5 @ mozjs_small_map_6 @
    mozjs_small_map_7 @ mozjs_small_map_8 @ mozjs_small_map_9 @ mozjs_small_map_10 @
    mozjs_small_map_11 @ mozjs_small_map_12 @ mozjs_small_map_13 @ mozjs_small_map_14 @
    mozjs_small_map_15 @ mozjs_small_map_16 @ mozjs_small_map_17 @ mozjs_small_map_18 @
    mozjs_small_map_19 @ mozjs_small_map_20 @ mozjs_small_map_21 @ mozjs_small_map_22 @
    mozjs_small_map_23 @ mozjs_small_map_24"

lemmas mozjs_small_table_0_defs =
  mozjs_small_table_0_def mozjs_small_run_0_def mozjs_small_run_73_def

lemmas mozjs_small_table_1_defs =
  mozjs_small_table_1_def mozjs_small_run_160_def mozjs_small_run_231_def

lemmas mozjs_small_table_2_defs =
  mozjs_small_table_2_def mozjs_small_run_318_def mozjs_small_run_409_def

lemmas mozjs_small_table_3_defs =
  mozjs_small_table_3_def mozjs_small_run_480_def mozjs_small_run_551_def

lemmas mozjs_small_table_4_defs =
  mozjs_small_table_4_def mozjs_small_run_622_def mozjs_small_run_693_def

lemmas mozjs_small_table_5_defs =
  mozjs_small_table_5_def mozjs_small_run_766_def mozjs_small_run_837_def

lemmas mozjs_small_table_6_defs =
  mozjs_small_table_6_def mozjs_small_run_910_def mozjs_small_run_983_def

lemmas mozjs_small_table_7_defs =
  mozjs_small_table_7_def mozjs_small_run_1056_def mozjs_small_run_1129_def

lemmas mozjs_small_table_8_defs =
  mozjs_small_table_8_def mozjs_small_run_1204_def mozjs_small_run_1277_def

lemmas mozjs_small_table_9_defs =
  mozjs_small_table_9_def mozjs_small_run_1350_def mozjs_small_run_1423_def

lemmas mozjs_small_table_10_defs =
  mozjs_small_table_10_def mozjs_small_run_1496_def mozjs_small_run_1569_def

lemmas mozjs_small_table_11_defs =
  mozjs_small_table_11_def mozjs_small_run_1640_def mozjs_small_run_1710_def

lemmas mozjs_small_table_12_defs =
  mozjs_small_table_12_def mozjs_small_run_1780_def mozjs_small_run_1850_def

lemmas mozjs_small_table_13_defs =
  mozjs_small_table_13_def mozjs_small_run_1920_def mozjs_small_run_1990_def

lemmas mozjs_small_table_14_defs =
  mozjs_small_table_14_def mozjs_small_run_2060_def mozjs_small_run_2130_def

lemmas mozjs_small_table_15_defs =
  mozjs_small_table_15_def mozjs_small_run_2200_def mozjs_small_run_2270_def

lemmas mozjs_small_table_16_defs =
  mozjs_small_table_16_def mozjs_small_run_2340_def mozjs_small_run_2410_def

lemmas mozjs_small_table_17_defs =
  mozjs_small_table_17_def mozjs_small_run_2480_def mozjs_small_run_2550_def

lemmas mozjs_small_table_18_defs =
  mozjs_small_table_18_def mozjs_small_run_2620_def mozjs_small_run_2690_def

lemmas mozjs_small_table_19_defs =
  mozjs_small_table_19_def mozjs_small_run_2760_def mozjs_small_run_2830_def

lemmas mozjs_small_table_20_defs =
  mozjs_small_table_20_def mozjs_small_run_2900_def mozjs_small_run_2970_def

lemmas mozjs_small_table_21_defs =
  mozjs_small_table_21_def mozjs_small_run_3040_def mozjs_small_run_3110_def

lemmas mozjs_small_table_22_defs =
  mozjs_small_table_22_def mozjs_small_run_3180_def mozjs_small_run_3250_def

lemmas mozjs_small_table_23_defs =
  mozjs_small_table_23_def mozjs_small_run_3320_def mozjs_small_run_3390_def

lemmas mozjs_small_table_24_defs =
  mozjs_small_table_24_def mozjs_small_run_3460_def mozjs_small_run_3530_def

lemmas mozjs_small_table_25_defs =
  mozjs_small_table_25_def mozjs_small_run_3600_def mozjs_small_run_3670_def

lemmas mozjs_small_table_26_defs =
  mozjs_small_table_26_def mozjs_small_run_3740_def mozjs_small_run_3826_def

lemmas mozjs_small_table_27_defs =
  mozjs_small_table_27_def mozjs_small_run_3896_def mozjs_small_run_3966_def

lemmas mozjs_small_table_28_defs =
  mozjs_small_table_28_def mozjs_small_run_4036_def mozjs_small_run_4122_def

lemmas mozjs_small_table_29_defs =
  mozjs_small_table_29_def mozjs_small_run_4192_def mozjs_small_run_4262_def

lemmas mozjs_small_table_30_defs =
  mozjs_small_table_30_def mozjs_small_run_4332_def mozjs_small_run_4402_def

lemmas mozjs_small_table_31_defs =
  mozjs_small_table_31_def mozjs_small_run_4472_def mozjs_small_run_4542_def

lemmas mozjs_small_table_32_defs =
  mozjs_small_table_32_def mozjs_small_run_4612_def mozjs_small_run_4682_def

lemmas mozjs_small_table_33_defs =
  mozjs_small_table_33_def mozjs_small_run_4772_def mozjs_small_run_4842_def

lemmas mozjs_small_table_34_defs =
  mozjs_small_table_34_def mozjs_small_run_4912_def mozjs_small_run_4982_def

lemmas mozjs_small_table_35_defs =
  mozjs_small_table_35_def mozjs_small_run_5052_def mozjs_small_run_5142_def

lemmas mozjs_small_table_36_defs =
  mozjs_small_table_36_def mozjs_small_run_5212_def mozjs_small_run_5282_def

lemmas mozjs_small_table_37_defs =
  mozjs_small_table_37_def mozjs_small_run_5352_def mozjs_small_run_5422_def

lemmas mozjs_small_table_38_defs =
  mozjs_small_table_38_def mozjs_small_run_5492_def mozjs_small_run_5562_def

lemmas mozjs_small_table_39_defs =
  mozjs_small_table_39_def mozjs_small_run_5632_def mozjs_small_run_5702_def

lemmas mozjs_small_table_40_defs =
  mozjs_small_table_40_def mozjs_small_run_5772_def mozjs_small_run_5842_def

lemmas mozjs_small_table_41_defs =
  mozjs_small_table_41_def mozjs_small_run_5912_def mozjs_small_run_5982_def

lemmas mozjs_small_table_42_defs =
  mozjs_small_table_42_def mozjs_small_run_6052_def mozjs_small_run_6122_def

lemmas mozjs_small_table_43_defs =
  mozjs_small_table_43_def mozjs_small_run_6192_def mozjs_small_run_6262_def

lemmas mozjs_small_table_44_defs =
  mozjs_small_table_44_def mozjs_small_run_6332_def mozjs_small_run_6402_def

lemmas mozjs_small_table_45_defs =
  mozjs_small_table_45_def mozjs_small_run_6472_def mozjs_small_run_6542_def

lemmas mozjs_small_table_46_defs =
  mozjs_small_table_46_def mozjs_small_run_6612_def mozjs_small_run_6682_def

lemmas mozjs_small_table_47_defs =
  mozjs_small_table_47_def mozjs_small_run_6752_def mozjs_small_run_6838_def

lemmas mozjs_small_table_48_defs =
  mozjs_small_table_48_def mozjs_small_run_6924_def mozjs_small_run_7010_def

lemmas mozjs_small_table_49_defs =
  mozjs_small_table_49_def mozjs_small_run_7080_def mozjs_small_run_7170_def

lemmas mozjs_small_table_50_defs =
  mozjs_small_table_50_def mozjs_small_run_7240_def mozjs_small_run_7328_def

lemmas mozjs_small_table_51_defs =
  mozjs_small_table_51_def mozjs_small_run_7414_def mozjs_small_run_7480_def

lemmas mozjs_small_table_52_defs =
  mozjs_small_table_52_def mozjs_small_run_7562_def mozjs_small_run_7628_def

lemmas mozjs_small_table_53_defs =
  mozjs_small_table_53_def mozjs_small_run_7694_def mozjs_small_run_7760_def

lemmas mozjs_small_table_54_defs =
  mozjs_small_table_54_def mozjs_small_run_7826_def mozjs_small_run_7908_def

lemmas mozjs_small_table_55_defs =
  mozjs_small_table_55_def mozjs_small_run_7974_def mozjs_small_run_8040_def

lemmas mozjs_small_table_56_defs =
  mozjs_small_table_56_def mozjs_small_run_8110_def mozjs_small_run_8192_def

lemmas mozjs_small_table_57_defs =
  mozjs_small_table_57_def mozjs_small_run_8257_def mozjs_small_run_8328_def

lemmas mozjs_small_table_58_defs =
  mozjs_small_table_58_def mozjs_small_run_8411_def mozjs_small_run_8482_def

lemmas mozjs_small_table_59_defs =
  mozjs_small_table_59_def mozjs_small_run_8547_def mozjs_small_run_8618_def

lemmas mozjs_small_table_60_defs =
  mozjs_small_table_60_def mozjs_small_run_8683_def mozjs_small_run_8748_def

lemmas mozjs_small_table_61_defs =
  mozjs_small_table_61_def mozjs_small_run_8813_def mozjs_small_run_8878_def

lemmas mozjs_small_table_62_defs =
  mozjs_small_table_62_def mozjs_small_run_8949_def mozjs_small_run_9014_def

lemmas mozjs_small_table_63_defs =
  mozjs_small_table_63_def mozjs_small_run_9079_def mozjs_small_run_9144_def

lemmas mozjs_small_table_64_defs =
  mozjs_small_table_64_def mozjs_small_run_9209_def mozjs_small_run_9274_def

lemmas mozjs_small_table_65_defs =
  mozjs_small_table_65_def mozjs_small_run_9339_def mozjs_small_run_9404_def

lemmas mozjs_small_table_66_defs =
  mozjs_small_table_66_def mozjs_small_run_9469_def mozjs_small_run_9534_def

lemmas mozjs_small_table_67_defs =
  mozjs_small_table_67_def mozjs_small_run_9599_def mozjs_small_run_9664_def

lemmas mozjs_small_table_68_defs =
  mozjs_small_table_68_def mozjs_small_run_9729_def mozjs_small_run_9794_def

lemmas mozjs_small_table_69_defs =
  mozjs_small_table_69_def mozjs_small_run_9862_def mozjs_small_run_9925_def

lemmas mozjs_small_table_70_defs =
  mozjs_small_table_70_def mozjs_small_run_9994_def mozjs_small_run_10065_def

lemmas mozjs_small_table_71_defs =
  mozjs_small_table_71_def mozjs_small_run_10136_def mozjs_small_run_10199_def

lemmas mozjs_small_table_72_defs =
  mozjs_small_table_72_def mozjs_small_run_10270_def mozjs_small_run_10333_def

lemmas mozjs_small_table_73_defs =
  mozjs_small_table_73_def mozjs_small_run_10402_def mozjs_small_run_10465_def

lemmas mozjs_small_table_74_defs =
  mozjs_small_table_74_def mozjs_small_run_10528_def mozjs_small_run_10597_def

lemmas mozjs_small_table_75_defs =
  mozjs_small_table_75_def mozjs_small_run_10668_def mozjs_small_run_10739_def

lemmas mozjs_small_table_76_defs =
  mozjs_small_table_76_def mozjs_small_run_10808_def mozjs_small_run_10879_def

lemmas mozjs_small_table_77_defs =
  mozjs_small_table_77_def mozjs_small_run_10948_def mozjs_small_run_11019_def

lemmas mozjs_small_table_78_defs =
  mozjs_small_table_78_def mozjs_small_run_11088_def mozjs_small_run_11151_def

lemmas mozjs_small_table_79_defs =
  mozjs_small_table_79_def mozjs_small_run_11214_def mozjs_small_run_11281_def

lemmas mozjs_small_table_80_defs =
  mozjs_small_table_80_def mozjs_small_run_11352_def mozjs_small_run_11423_def

lemmas mozjs_small_table_81_defs =
  mozjs_small_table_81_def mozjs_small_run_11494_def mozjs_small_run_11563_def

lemmas mozjs_small_table_82_defs =
  mozjs_small_table_82_def mozjs_small_run_11632_def mozjs_small_run_11704_def

lemmas mozjs_small_table_83_defs =
  mozjs_small_table_83_def mozjs_small_run_11774_def mozjs_small_run_11842_def

lemmas mozjs_small_table_84_defs =
  mozjs_small_table_84_def mozjs_small_run_11910_def mozjs_small_run_11976_def

lemmas mozjs_small_table_85_defs =
  mozjs_small_table_85_def mozjs_small_run_12048_def mozjs_small_run_12116_def

lemmas mozjs_small_table_86_defs =
  mozjs_small_table_86_def mozjs_small_run_12182_def mozjs_small_run_12252_def

lemmas mozjs_small_table_87_defs =
  mozjs_small_table_87_def mozjs_small_run_12323_def mozjs_small_run_12392_def

lemmas mozjs_small_table_88_defs =
  mozjs_small_table_88_def mozjs_small_run_12459_def mozjs_small_run_12530_def

lemmas mozjs_small_table_89_defs =
  mozjs_small_table_89_def mozjs_small_run_12596_def mozjs_small_run_12662_def

lemmas mozjs_small_table_90_defs =
  mozjs_small_table_90_def mozjs_small_run_12728_def mozjs_small_run_12794_def

lemmas mozjs_small_table_91_defs =
  mozjs_small_table_91_def mozjs_small_run_12862_def mozjs_small_run_12928_def

lemmas mozjs_small_table_92_defs =
  mozjs_small_table_92_def mozjs_small_run_12994_def mozjs_small_run_13060_def

lemmas mozjs_small_table_93_defs =
  mozjs_small_table_93_def mozjs_small_run_13130_def mozjs_small_run_13196_def

lemmas mozjs_small_table_94_defs =
  mozjs_small_table_94_def mozjs_small_run_13266_def mozjs_small_run_13332_def

lemmas mozjs_small_table_95_defs =
  mozjs_small_table_95_def mozjs_small_run_13398_def mozjs_small_run_13461_def

lemmas mozjs_small_table_96_defs =
  mozjs_small_table_96_def mozjs_small_run_13524_def mozjs_small_run_13591_def

lemmas mozjs_small_table_97_defs =
  mozjs_small_table_97_def mozjs_small_run_13647_def mozjs_small_run_13713_def

lemmas mozjs_small_table_98_defs =
  mozjs_small_table_98_def mozjs_small_run_13773_def mozjs_small_run_13834_def

lemmas mozjs_small_table_99_defs =
  mozjs_small_table_99_def mozjs_small_run_13895_def mozjs_small_run_13958_def

lemmas mozjs_small_table_100_defs =
  mozjs_small_table_100_def mozjs_small_run_14013_def mozjs_small_run_14066_def
    mozjs_small_run_14119_def

lemmas mozjs_small_table_101_defs =
  mozjs_small_table_101_def mozjs_small_run_14172_def mozjs_small_run_14235_def
    mozjs_small_run_14285_def

lemmas mozjs_small_table_102_defs =
  mozjs_small_table_102_def mozjs_small_run_14335_def mozjs_small_run_14385_def
    mozjs_small_run_14435_def

lemmas mozjs_small_table_103_defs =
  mozjs_small_table_103_def mozjs_small_run_14485_def mozjs_small_run_14535_def
    mozjs_small_run_14585_def

lemmas mozjs_small_table_104_defs =
  mozjs_small_table_104_def mozjs_small_run_14639_def mozjs_small_run_14689_def
    mozjs_small_run_14739_def

lemmas mozjs_small_table_105_defs =
  mozjs_small_table_105_def mozjs_small_run_14789_def mozjs_small_run_14839_def
    mozjs_small_run_14889_def

lemmas mozjs_small_table_106_defs =
  mozjs_small_table_106_def mozjs_small_run_14939_def mozjs_small_run_14989_def
    mozjs_small_run_15039_def

lemmas mozjs_small_table_107_defs =
  mozjs_small_table_107_def mozjs_small_run_15089_def mozjs_small_run_15139_def
    mozjs_small_run_15193_def

lemmas mozjs_small_table_108_defs =
  mozjs_small_table_108_def mozjs_small_run_15243_def mozjs_small_run_15293_def
    mozjs_small_run_15343_def

lemmas mozjs_small_table_109_defs =
  mozjs_small_table_109_def mozjs_small_run_15393_def mozjs_small_run_15443_def
    mozjs_small_run_15493_def

lemmas mozjs_small_table_110_defs =
  mozjs_small_table_110_def mozjs_small_run_15543_def mozjs_small_run_15593_def
    mozjs_small_run_15643_def

lemmas mozjs_small_table_111_defs =
  mozjs_small_table_111_def mozjs_small_run_15693_def mozjs_small_run_15743_def
    mozjs_small_run_15793_def

lemmas mozjs_small_table_112_defs =
  mozjs_small_table_112_def mozjs_small_run_15845_def mozjs_small_run_15895_def
    mozjs_small_run_15945_def

lemmas mozjs_small_table_113_defs =
  mozjs_small_table_113_def mozjs_small_run_15995_def mozjs_small_run_16045_def
    mozjs_small_run_16095_def

lemmas mozjs_small_table_114_defs =
  mozjs_small_table_114_def mozjs_small_run_16145_def mozjs_small_run_16195_def
    mozjs_small_run_16245_def

lemmas mozjs_small_table_115_defs =
  mozjs_small_table_115_def mozjs_small_run_16295_def mozjs_small_run_16345_def
    mozjs_small_run_16395_def

lemmas mozjs_small_table_116_defs =
  mozjs_small_table_116_def mozjs_small_run_16445_def mozjs_small_run_16495_def
    mozjs_small_run_16545_def

lemmas mozjs_small_table_117_defs =
  mozjs_small_table_117_def mozjs_small_run_16595_def mozjs_small_run_16645_def
    mozjs_small_run_16695_def

lemmas mozjs_small_table_118_defs =
  mozjs_small_table_118_def mozjs_small_run_16745_def mozjs_small_run_16795_def
    mozjs_small_run_16845_def

lemmas mozjs_small_table_119_defs =
  mozjs_small_table_119_def mozjs_small_run_16895_def mozjs_small_run_16945_def
    mozjs_small_run_16995_def

lemmas mozjs_small_table_120_defs =
  mozjs_small_table_120_def mozjs_small_run_17045_def mozjs_small_run_17095_def
    mozjs_small_run_17145_def

lemmas mozjs_small_table_121_defs =
  mozjs_small_table_121_def mozjs_small_run_17199_def mozjs_small_run_17249_def

lemmas mozjs_small_table_122_defs =
  mozjs_small_table_122_def mozjs_small_run_17299_def mozjs_small_run_17376_def

lemmas mozjs_small_table_123_defs =
  mozjs_small_table_123_def mozjs_small_run_17425_def mozjs_small_run_17476_def

lemmas mozjs_small_table_124_defs =
  mozjs_small_table_124_def mozjs_small_run_17525_def mozjs_small_run_17618_def

lemmas mozjs_small_table_125_defs =
  mozjs_small_table_125_def mozjs_small_run_17681_def mozjs_small_run_17766_def

lemmas mozjs_small_table_126_defs =
  mozjs_small_table_126_def mozjs_small_run_17853_def mozjs_small_run_17922_def

lemmas mozjs_small_table_127_defs =
  mozjs_small_table_127_def mozjs_small_run_18003_def mozjs_small_run_18086_def

lemmas mozjs_small_table_128_defs =
  mozjs_small_table_128_def mozjs_small_run_18171_def mozjs_small_run_18264_def

lemmas mozjs_small_table_129_defs =
  mozjs_small_table_129_def mozjs_small_run_18331_def mozjs_small_run_18424_def

lemmas mozjs_small_table_130_defs =
  mozjs_small_table_130_def mozjs_small_run_18487_def mozjs_small_run_18536_def

lemmas mozjs_small_table_131_defs =
  mozjs_small_table_131_def mozjs_small_run_18625_def mozjs_small_run_18688_def

lemmas mozjs_small_table_132_defs =
  mozjs_small_table_132_def mozjs_small_run_18781_def mozjs_small_run_18874_def

lemmas mozjs_small_table_133_defs =
  mozjs_small_table_133_def mozjs_small_run_18967_def mozjs_small_run_19060_def

lemmas mozjs_small_table_134_defs =
  mozjs_small_table_134_def mozjs_small_run_19153_def mozjs_small_run_19246_def

lemmas mozjs_small_table_135_defs =
  mozjs_small_table_135_def mozjs_small_run_19339_def mozjs_small_run_19390_def

lemmas mozjs_small_table_136_defs =
  mozjs_small_table_136_def mozjs_small_run_19439_def mozjs_small_run_19512_def

lemmas mozjs_small_table_137_defs =
  mozjs_small_table_137_def mozjs_small_run_19569_def mozjs_small_run_19662_def

lemmas mozjs_small_table_138_defs =
  mozjs_small_table_138_def mozjs_small_run_19755_def mozjs_small_run_19806_def
    mozjs_small_run_19857_def

lemmas mozjs_small_table_139_defs =
  mozjs_small_table_139_def mozjs_small_run_19905_def mozjs_small_run_19955_def

lemmas mozjs_small_table_140_defs =
  mozjs_small_table_140_def mozjs_small_run_20013_def mozjs_small_run_20105_def

lemmas mozjs_small_table_141_defs =
  mozjs_small_table_141_def mozjs_small_run_20155_def mozjs_small_run_20207_def
    mozjs_small_run_20265_def

lemmas mozjs_small_table_142_defs =
  mozjs_small_table_142_def mozjs_small_run_20313_def mozjs_small_run_20365_def
    mozjs_small_run_20419_def

lemmas mozjs_small_table_143_defs =
  mozjs_small_table_143_def mozjs_small_run_20469_def mozjs_small_run_20529_def
    mozjs_small_run_20579_def

lemmas mozjs_small_table_144_defs =
  mozjs_small_table_144_def mozjs_small_run_20639_def mozjs_small_run_20730_def

lemmas mozjs_small_table_145_defs =
  mozjs_small_table_145_def mozjs_small_run_20777_def mozjs_small_run_20868_def

lemmas mozjs_small_table_146_defs =
  mozjs_small_table_146_def mozjs_small_run_20915_def mozjs_small_run_20962_def

lemmas mozjs_small_table_147_defs =
  mozjs_small_table_147_def mozjs_small_run_21011_def mozjs_small_run_21102_def

lemmas mozjs_small_table_148_defs =
  mozjs_small_table_148_def mozjs_small_run_21193_def mozjs_small_run_21264_def

lemmas mozjs_small_table_149_defs =
  mozjs_small_table_149_def mozjs_small_run_21325_def mozjs_small_run_21372_def

lemmas mozjs_small_table_150_defs =
  mozjs_small_table_150_def mozjs_small_run_21455_def mozjs_small_run_21540_def

lemmas mozjs_small_table_151_defs =
  mozjs_small_table_151_def mozjs_small_run_21607_def mozjs_small_run_21686_def

lemmas mozjs_small_table_152_defs =
  mozjs_small_table_152_def mozjs_small_run_21767_def mozjs_small_run_21850_def

lemmas mozjs_small_table_153_defs =
  mozjs_small_table_153_def mozjs_small_run_21915_def mozjs_small_run_21976_def

lemmas mozjs_small_table_154_defs =
  mozjs_small_table_154_def mozjs_small_run_22051_def mozjs_small_run_22138_def

lemmas mozjs_small_table_155_defs =
  mozjs_small_table_155_def mozjs_small_run_22229_def mozjs_small_run_22320_def

lemmas mozjs_small_table_156_defs =
  mozjs_small_table_156_def mozjs_small_run_22411_def mozjs_small_run_22458_def

lemmas mozjs_small_table_157_defs =
  mozjs_small_table_157_def mozjs_small_run_22549_def mozjs_small_run_22640_def

lemmas mozjs_small_table_158_defs =
  mozjs_small_table_158_def mozjs_small_run_22731_def mozjs_small_run_22778_def

lemmas mozjs_small_table_159_defs =
  mozjs_small_table_159_def mozjs_small_run_22869_def mozjs_small_run_22940_def

lemmas mozjs_small_table_160_defs =
  mozjs_small_table_160_def mozjs_small_run_23031_def mozjs_small_run_23078_def
    mozjs_small_run_23125_def

lemmas mozjs_small_table_161_defs =
  mozjs_small_table_161_def mozjs_small_run_23172_def mozjs_small_run_23263_def

lemmas mozjs_small_table_162_defs =
  mozjs_small_table_162_def mozjs_small_run_23310_def mozjs_small_run_23357_def
    mozjs_small_run_23404_def

lemmas mozjs_small_table_163_defs =
  mozjs_small_table_163_def mozjs_small_run_23451_def mozjs_small_run_23502_def
    mozjs_small_run_23549_def

lemmas mozjs_small_table_164_defs =
  mozjs_small_table_164_def mozjs_small_run_23596_def mozjs_small_run_23643_def
    mozjs_small_run_23694_def

lemmas mozjs_small_table_165_defs =
  mozjs_small_table_165_def mozjs_small_run_23745_def mozjs_small_run_23792_def

lemmas mozjs_small_table_166_defs =
  mozjs_small_table_166_def mozjs_small_run_23839_def mozjs_small_run_23930_def

lemmas mozjs_small_table_167_defs =
  mozjs_small_table_167_def mozjs_small_run_24021_def mozjs_small_run_24072_def

lemmas mozjs_small_table_168_defs =
  mozjs_small_table_168_def mozjs_small_run_24163_def mozjs_small_run_24214_def

lemmas mozjs_small_table_169_defs =
  mozjs_small_table_169_def mozjs_small_run_24261_def mozjs_small_run_24352_def

lemmas mozjs_small_table_170_defs =
  mozjs_small_table_170_def mozjs_small_run_24399_def mozjs_small_run_24460_def

lemmas mozjs_small_table_171_defs =
  mozjs_small_table_171_def mozjs_small_run_24509_def mozjs_small_run_24592_def

lemmas mozjs_small_table_172_defs =
  mozjs_small_table_172_def mozjs_small_run_24639_def mozjs_small_run_24724_def

lemmas mozjs_small_table_173_defs =
  mozjs_small_table_173_def mozjs_small_run_24775_def mozjs_small_run_24866_def

lemmas mozjs_small_table_174_defs =
  mozjs_small_table_174_def mozjs_small_run_24917_def mozjs_small_run_24984_def
    mozjs_small_run_25035_def

lemmas mozjs_small_table_175_defs =
  mozjs_small_table_175_def mozjs_small_run_25086_def mozjs_small_run_25133_def
    mozjs_small_run_25212_def

lemmas mozjs_small_table_176_defs =
  mozjs_small_table_176_def mozjs_small_run_25263_def mozjs_small_run_25344_def
    mozjs_small_run_25391_def

lemmas mozjs_small_table_177_defs =
  mozjs_small_table_177_def mozjs_small_run_25438_def mozjs_small_run_25485_def

lemmas mozjs_small_table_178_defs =
  mozjs_small_table_178_def mozjs_small_run_25576_def mozjs_small_run_25623_def
    mozjs_small_run_25670_def

lemmas mozjs_small_table_179_defs =
  mozjs_small_table_179_def mozjs_small_run_25717_def mozjs_small_run_25764_def

lemmas mozjs_small_table_180_defs =
  mozjs_small_table_180_def mozjs_small_run_25847_def mozjs_small_run_25912_def

lemmas mozjs_small_table_181_defs =
  mozjs_small_table_181_def mozjs_small_run_25973_def mozjs_small_run_26048_def

lemmas mozjs_small_table_182_defs =
  mozjs_small_table_182_def mozjs_small_run_26099_def mozjs_small_run_26190_def

lemmas mozjs_small_table_183_defs =
  mozjs_small_table_183_def mozjs_small_run_26277_def mozjs_small_run_26324_def
    mozjs_small_run_26371_def

lemmas mozjs_small_table_184_defs =
  mozjs_small_table_184_def mozjs_small_run_26418_def mozjs_small_run_26465_def
    mozjs_small_run_26512_def

lemmas mozjs_small_table_185_defs =
  mozjs_small_table_185_def mozjs_small_run_26559_def mozjs_small_run_26606_def
    mozjs_small_run_26653_def

lemmas mozjs_small_table_186_defs =
  mozjs_small_table_186_def mozjs_small_run_26700_def mozjs_small_run_26791_def

lemmas mozjs_small_table_187_defs =
  mozjs_small_table_187_def mozjs_small_run_26838_def mozjs_small_run_26887_def
    mozjs_small_run_26934_def

lemmas mozjs_small_table_188_defs =
  mozjs_small_table_188_def mozjs_small_run_26981_def mozjs_small_run_27028_def
    mozjs_small_run_27079_def

lemmas mozjs_small_table_189_defs =
  mozjs_small_table_189_def mozjs_small_run_27126_def mozjs_small_run_27173_def
    mozjs_small_run_27220_def

lemmas mozjs_small_table_190_defs =
  mozjs_small_table_190_def mozjs_small_run_27267_def mozjs_small_run_27314_def

lemmas mozjs_small_table_191_defs =
  mozjs_small_table_191_def mozjs_small_run_27405_def mozjs_small_run_27452_def
    mozjs_small_run_27503_def

lemmas mozjs_small_table_192_defs =
  mozjs_small_table_192_def mozjs_small_run_27550_def mozjs_small_run_27641_def

lemmas mozjs_small_table_193_defs =
  mozjs_small_table_193_def mozjs_small_run_27692_def mozjs_small_run_27783_def

lemmas mozjs_small_table_194_defs =
  mozjs_small_table_194_def mozjs_small_run_27832_def mozjs_small_run_27879_def
    mozjs_small_run_27931_def

lemmas mozjs_small_table_195_defs =
  mozjs_small_table_195_def mozjs_small_run_27981_def mozjs_small_run_28033_def

lemmas mozjs_small_table_196_defs =
  mozjs_small_table_196_def mozjs_small_run_28123_def mozjs_small_run_28217_def

lemmas mozjs_small_table_197_defs =
  mozjs_small_table_197_def mozjs_small_run_28311_def mozjs_small_run_28405_def

lemmas mozjs_small_table_198_defs =
  mozjs_small_table_198_def mozjs_small_run_28455_def mozjs_small_run_28507_def

lemmas mozjs_small_table_199_defs =
  mozjs_small_table_199_def mozjs_small_run_28599_def mozjs_small_run_28649_def

lemmas mozjs_small_table_200_defs =
  mozjs_small_table_200_def mozjs_small_run_28739_def mozjs_small_run_28833_def

lemmas mozjs_small_table_201_defs =
  mozjs_small_table_201_def mozjs_small_run_28927_def mozjs_small_run_28979_def

lemmas mozjs_small_table_202_defs =
  mozjs_small_table_202_def mozjs_small_run_29073_def mozjs_small_run_29160_def

lemmas mozjs_small_table_203_defs =
  mozjs_small_table_203_def mozjs_small_run_29253_def mozjs_small_run_29346_def

lemmas mozjs_small_table_204_defs =
  mozjs_small_table_204_def mozjs_small_run_29439_def mozjs_small_run_29532_def

lemmas mozjs_small_table_205_defs =
  mozjs_small_table_205_def mozjs_small_run_29625_def mozjs_small_run_29718_def

lemmas mozjs_small_table_206_defs =
  mozjs_small_table_206_def mozjs_small_run_29811_def mozjs_small_run_29904_def

lemmas mozjs_small_table_207_defs =
  mozjs_small_table_207_def mozjs_small_run_29997_def mozjs_small_run_30090_def

lemmas mozjs_small_table_208_defs =
  mozjs_small_table_208_def mozjs_small_run_30183_def mozjs_small_run_30276_def

lemmas mozjs_small_table_209_defs =
  mozjs_small_table_209_def mozjs_small_run_30369_def mozjs_small_run_30462_def

lemmas mozjs_small_table_210_defs =
  mozjs_small_table_210_def mozjs_small_run_30555_def mozjs_small_run_30644_def

lemmas mozjs_small_table_211_defs =
  mozjs_small_table_211_def mozjs_small_run_30737_def mozjs_small_run_30830_def

lemmas mozjs_small_table_212_defs =
  mozjs_small_table_212_def mozjs_small_run_30919_def mozjs_small_run_31012_def

lemmas mozjs_small_table_213_defs =
  mozjs_small_table_213_def mozjs_small_run_31105_def mozjs_small_run_31156_def

lemmas mozjs_small_table_214_defs =
  mozjs_small_table_214_def mozjs_small_run_31245_def mozjs_small_run_31296_def
    mozjs_small_run_31347_def

lemmas mozjs_small_table_215_defs =
  mozjs_small_table_215_def mozjs_small_run_31398_def mozjs_small_run_31485_def

lemmas mozjs_small_table_216_defs =
  mozjs_small_table_216_def mozjs_small_run_31578_def mozjs_small_run_31671_def

lemmas mozjs_small_table_217_defs =
  mozjs_small_table_217_def mozjs_small_run_31764_def mozjs_small_run_31857_def

lemmas mozjs_small_table_218_defs =
  mozjs_small_table_218_def mozjs_small_run_31950_def mozjs_small_run_32043_def

lemmas mozjs_small_table_219_defs =
  mozjs_small_table_219_def mozjs_small_run_32136_def mozjs_small_run_32223_def

lemmas mozjs_small_table_220_defs =
  mozjs_small_table_220_def mozjs_small_run_32316_def mozjs_small_run_32409_def

lemmas mozjs_small_table_221_defs =
  mozjs_small_table_221_def mozjs_small_run_32496_def mozjs_small_run_32589_def

lemmas mozjs_small_table_222_defs =
  mozjs_small_table_222_def mozjs_small_run_32676_def mozjs_small_run_32769_def

lemmas mozjs_small_table_223_defs =
  mozjs_small_table_223_def mozjs_small_run_32856_def mozjs_small_run_32949_def

lemmas mozjs_small_table_224_defs =
  mozjs_small_table_224_def mozjs_small_run_33042_def mozjs_small_run_33135_def

lemmas mozjs_small_table_225_defs =
  mozjs_small_table_225_def mozjs_small_run_33228_def mozjs_small_run_33321_def

lemmas mozjs_small_table_226_defs =
  mozjs_small_table_226_def mozjs_small_run_33414_def mozjs_small_run_33507_def

lemmas mozjs_small_table_227_defs =
  mozjs_small_table_227_def mozjs_small_run_33600_def mozjs_small_run_33693_def

lemmas mozjs_small_table_228_defs =
  mozjs_small_table_228_def mozjs_small_run_33786_def mozjs_small_run_33879_def

lemmas mozjs_small_table_229_defs =
  mozjs_small_table_229_def mozjs_small_run_33972_def mozjs_small_run_34065_def

lemmas mozjs_small_table_230_defs =
  mozjs_small_table_230_def mozjs_small_run_34158_def mozjs_small_run_34251_def

lemmas mozjs_small_table_231_defs =
  mozjs_small_table_231_def mozjs_small_run_34344_def mozjs_small_run_34432_def

lemmas mozjs_small_table_232_defs =
  mozjs_small_table_232_def mozjs_small_run_34510_def mozjs_small_run_34590_def

lemmas mozjs_small_table_233_defs =
  mozjs_small_table_233_def mozjs_small_run_34652_def mozjs_small_run_34710_def

lemmas mozjs_small_table_234_defs =
  mozjs_small_table_234_def mozjs_small_run_34782_def mozjs_small_run_34866_def

lemmas mozjs_small_table_235_defs =
  mozjs_small_table_235_def mozjs_small_run_34954_def mozjs_small_run_35042_def

lemmas mozjs_small_table_236_defs =
  mozjs_small_table_236_def mozjs_small_run_35130_def mozjs_small_run_35218_def

lemmas mozjs_small_table_237_defs =
  mozjs_small_table_237_def mozjs_small_run_35306_def mozjs_small_run_35394_def

lemmas mozjs_small_table_238_defs =
  mozjs_small_table_238_def mozjs_small_run_35482_def mozjs_small_run_35570_def

lemmas mozjs_small_table_239_defs =
  mozjs_small_table_239_def mozjs_small_run_35616_def mozjs_small_run_35706_def

lemmas mozjs_small_table_240_defs =
  mozjs_small_table_240_def mozjs_small_run_35794_def mozjs_small_run_35882_def

lemmas mozjs_small_table_241_defs =
  mozjs_small_table_241_def mozjs_small_run_35970_def mozjs_small_run_36016_def

lemmas mozjs_small_table_242_defs =
  mozjs_small_table_242_def mozjs_small_run_36104_def mozjs_small_run_36192_def

lemmas mozjs_small_table_243_defs =
  mozjs_small_table_243_def mozjs_small_run_36280_def mozjs_small_run_36368_def

lemmas mozjs_small_table_244_defs =
  mozjs_small_table_244_def mozjs_small_run_36456_def mozjs_small_run_36544_def

lemmas mozjs_small_table_245_defs =
  mozjs_small_table_245_def mozjs_small_run_36632_def mozjs_small_run_36720_def

lemmas mozjs_small_table_246_defs =
  mozjs_small_table_246_def mozjs_small_run_36808_def mozjs_small_run_36876_def

lemmas mozjs_small_table_247_defs =
  mozjs_small_table_247_def mozjs_small_run_36934_def mozjs_small_run_37014_def

lemmas mozjs_small_table_248_defs =
  mozjs_small_table_248_def mozjs_small_run_37096_def mozjs_small_run_37160_def

lemmas mozjs_small_table_249_defs =
  mozjs_small_table_249_def mozjs_small_run_37236_def mozjs_small_run_37314_def

lemmas mozjs_small_table_250_defs =
  mozjs_small_table_250_def mozjs_small_run_37390_def mozjs_small_run_37452_def

lemmas mozjs_small_table_251_defs =
  mozjs_small_table_251_def mozjs_small_run_37510_def mozjs_small_run_37582_def

lemmas mozjs_small_table_252_defs =
  mozjs_small_table_252_def mozjs_small_run_37666_def mozjs_small_run_37754_def

lemmas mozjs_small_table_253_defs =
  mozjs_small_table_253_def mozjs_small_run_37842_def mozjs_small_run_37930_def

lemmas mozjs_small_table_254_defs =
  mozjs_small_table_254_def mozjs_small_run_38018_def mozjs_small_run_38106_def

lemmas mozjs_small_table_255_defs =
  mozjs_small_table_255_def mozjs_small_run_38194_def mozjs_small_run_38282_def

lemmas mozjs_small_table_256_defs =
  mozjs_small_table_256_def mozjs_small_run_38350_def mozjs_small_run_38438_def

lemmas mozjs_small_table_257_defs =
  mozjs_small_table_257_def mozjs_small_run_38526_def mozjs_small_run_38614_def

lemmas mozjs_small_table_258_defs =
  mozjs_small_table_258_def mozjs_small_run_38702_def mozjs_small_run_38790_def

lemmas mozjs_small_table_259_defs =
  mozjs_small_table_259_def mozjs_small_run_38858_def mozjs_small_run_38916_def

lemmas mozjs_small_table_260_defs =
  mozjs_small_table_260_def mozjs_small_run_38996_def mozjs_small_run_39078_def

lemmas mozjs_small_table_261_defs =
  mozjs_small_table_261_def mozjs_small_run_39142_def mozjs_small_run_39218_def

lemmas mozjs_small_table_262_defs =
  mozjs_small_table_262_def mozjs_small_run_39296_def mozjs_small_run_39376_def

lemmas mozjs_small_table_263_defs =
  mozjs_small_table_263_def mozjs_small_run_39438_def mozjs_small_run_39496_def

lemmas mozjs_small_table_264_defs =
  mozjs_small_table_264_def mozjs_small_run_39568_def mozjs_small_run_39652_def

lemmas mozjs_small_table_265_defs =
  mozjs_small_table_265_def mozjs_small_run_39740_def mozjs_small_run_39828_def

lemmas mozjs_small_table_266_defs =
  mozjs_small_table_266_def mozjs_small_run_39916_def mozjs_small_run_39974_def

lemmas mozjs_small_table_267_defs =
  mozjs_small_table_267_def mozjs_small_run_40062_def mozjs_small_run_40150_def

lemmas mozjs_small_table_268_defs =
  mozjs_small_table_268_def mozjs_small_run_40200_def mozjs_small_run_40280_def

lemmas mozjs_small_table_269_defs =
  mozjs_small_table_269_def mozjs_small_run_40362_def mozjs_small_run_40450_def

lemmas mozjs_small_table_270_defs =
  mozjs_small_table_270_def mozjs_small_run_40496_def mozjs_small_run_40584_def

lemmas mozjs_small_table_271_defs =
  mozjs_small_table_271_def mozjs_small_run_40648_def mozjs_small_run_40728_def

lemmas mozjs_small_table_272_defs =
  mozjs_small_table_272_def mozjs_small_run_40815_def mozjs_small_run_40902_def

lemmas mozjs_small_table_273_defs =
  mozjs_small_table_273_def mozjs_small_run_40991_def mozjs_small_run_41070_def

lemmas mozjs_small_table_274_defs =
  mozjs_small_table_274_def mozjs_small_run_41157_def mozjs_small_run_41244_def

lemmas mozjs_small_table_275_defs =
  mozjs_small_table_275_def mozjs_small_run_41331_def mozjs_small_run_41418_def

lemmas mozjs_small_table_276_defs =
  mozjs_small_table_276_def mozjs_small_run_41505_def mozjs_small_run_41592_def

lemmas mozjs_small_table_277_defs =
  mozjs_small_table_277_def mozjs_small_run_41679_def mozjs_small_run_41763_def

lemmas mozjs_small_table_278_defs =
  mozjs_small_table_278_def mozjs_small_run_41847_def mozjs_small_run_41918_def

lemmas mozjs_small_table_279_defs =
  mozjs_small_table_279_def mozjs_small_run_41990_def mozjs_small_run_42062_def
    mozjs_small_run_42120_def

lemmas mozjs_small_table_280_defs =
  mozjs_small_table_280_def mozjs_small_run_42192_def mozjs_small_run_42264_def

lemmas mozjs_small_table_281_defs =
  mozjs_small_table_281_def mozjs_small_run_42336_def mozjs_small_run_42408_def
    mozjs_small_run_42480_def

lemmas mozjs_small_table_282_defs =
  mozjs_small_table_282_def mozjs_small_run_42538_def mozjs_small_run_42604_def
    mozjs_small_run_42657_def

lemmas mozjs_small_table_283_defs =
  mozjs_small_table_283_def mozjs_small_run_42714_def mozjs_small_run_42771_def
    mozjs_small_run_42830_def

lemmas mozjs_small_table_284_defs =
  mozjs_small_table_284_def mozjs_small_run_42887_def mozjs_small_run_42946_def
    mozjs_small_run_43003_def

lemmas mozjs_small_table_285_defs =
  mozjs_small_table_285_def mozjs_small_run_43062_def mozjs_small_run_43119_def
    mozjs_small_run_43178_def

lemmas mozjs_small_table_286_defs =
  mozjs_small_table_286_def mozjs_small_run_43235_def mozjs_small_run_43294_def
    mozjs_small_run_43353_def

lemmas mozjs_small_table_287_defs =
  mozjs_small_table_287_def mozjs_small_run_43405_def mozjs_small_run_43457_def
    mozjs_small_run_43509_def

lemmas mozjs_small_table_288_defs =
  mozjs_small_table_288_def mozjs_small_run_43563_def mozjs_small_run_43615_def
    mozjs_small_run_43667_def

lemmas mozjs_small_table_289_defs =
  mozjs_small_table_289_def mozjs_small_run_43719_def mozjs_small_run_43772_def
    mozjs_small_run_43823_def

lemmas mozjs_small_table_290_defs =
  mozjs_small_table_290_def mozjs_small_run_43874_def mozjs_small_run_43923_def
    mozjs_small_run_43984_def

lemmas mozjs_small_table_291_defs =
  mozjs_small_table_291_def mozjs_small_run_44030_def mozjs_small_run_44086_def
    mozjs_small_run_44134_def mozjs_small_run_44178_def

lemmas mozjs_small_table_292_defs =
  mozjs_small_table_292_def mozjs_small_run_44224_def mozjs_small_run_44270_def
    mozjs_small_run_44316_def mozjs_small_run_44360_def

lemmas mozjs_small_table_293_defs =
  mozjs_small_table_293_def mozjs_small_run_44416_def mozjs_small_run_44464_def
    mozjs_small_run_44508_def mozjs_small_run_44547_def

lemmas mozjs_small_table_294_defs =
  mozjs_small_table_294_def mozjs_small_run_44582_def mozjs_small_run_44621_def
    mozjs_small_run_44660_def mozjs_small_run_44699_def

lemmas mozjs_small_table_295_defs =
  mozjs_small_table_295_def mozjs_small_run_44740_def mozjs_small_run_44793_def
    mozjs_small_run_44832_def mozjs_small_run_44871_def mozjs_small_run_44899_def

lemmas mozjs_small_table_296_defs =
  mozjs_small_table_296_def mozjs_small_run_44927_def mozjs_small_run_44955_def
    mozjs_small_run_45005_def mozjs_small_run_45033_def mozjs_small_run_45061_def

lemmas mozjs_small_table_297_defs =
  mozjs_small_table_297_def mozjs_small_run_45089_def mozjs_small_run_45117_def
    mozjs_small_run_45151_def mozjs_small_run_45179_def mozjs_small_run_45209_def

lemmas mozjs_small_table_298_defs =
  mozjs_small_table_298_def mozjs_small_run_45237_def mozjs_small_run_45265_def
    mozjs_small_run_45293_def mozjs_small_run_45321_def mozjs_small_run_45351_def

lemmas mozjs_small_table_299_defs =
  mozjs_small_table_299_def mozjs_small_run_45379_def mozjs_small_run_45407_def
    mozjs_small_run_45435_def mozjs_small_run_45463_def mozjs_small_run_45491_def

lemmas mozjs_small_table_300_defs =
  mozjs_small_table_300_def mozjs_small_run_45541_def mozjs_small_run_45569_def
    mozjs_small_run_45597_def mozjs_small_run_45625_def mozjs_small_run_45653_def
    mozjs_small_run_45681_def

lemmas mozjs_small_table_301_defs =
  mozjs_small_table_301_def mozjs_small_run_45709_def mozjs_small_run_45737_def
    mozjs_small_run_45765_def mozjs_small_run_45793_def mozjs_small_run_45821_def
    mozjs_small_run_45849_def

lemmas mozjs_small_table_302_defs =
  mozjs_small_table_302_def mozjs_small_run_45877_def mozjs_small_run_45920_def
    mozjs_small_run_45947_def mozjs_small_run_45988_def mozjs_small_run_46029_def

lemmas mozjs_small_table_303_defs =
  mozjs_small_table_303_def mozjs_small_run_46056_def mozjs_small_run_46099_def
    mozjs_small_run_46142_def mozjs_small_run_46187_def mozjs_small_run_46214_def

lemmas mozjs_small_table_304_defs =
  mozjs_small_table_304_def mozjs_small_run_46241_def mozjs_small_run_46284_def
    mozjs_small_run_46311_def mozjs_small_run_46338_def mozjs_small_run_46367_def

lemmas mozjs_small_table_305_defs =
  mozjs_small_table_305_def mozjs_small_run_46406_def mozjs_small_run_46442_def
    mozjs_small_run_46478_def mozjs_small_run_46514_def mozjs_small_run_46550_def

lemmas mozjs_small_table_306_defs =
  mozjs_small_table_306_def mozjs_small_run_46586_def mozjs_small_run_46612_def
    mozjs_small_run_46648_def mozjs_small_run_46684_def mozjs_small_run_46720_def

lemmas mozjs_small_table_307_defs =
  mozjs_small_table_307_def mozjs_small_run_46756_def mozjs_small_run_46792_def
    mozjs_small_run_46828_def mozjs_small_run_46870_def mozjs_small_run_46906_def

lemmas mozjs_small_table_308_defs =
  mozjs_small_table_308_def mozjs_small_run_46942_def mozjs_small_run_46978_def
    mozjs_small_run_47018_def mozjs_small_run_47044_def mozjs_small_run_47070_def
    mozjs_small_run_47096_def

lemmas mozjs_small_table_309_defs =
  mozjs_small_table_309_def mozjs_small_run_47122_def mozjs_small_run_47148_def
    mozjs_small_run_47188_def mozjs_small_run_47224_def mozjs_small_run_47266_def

lemmas mozjs_small_table_310_defs =
  mozjs_small_table_310_def mozjs_small_run_47302_def mozjs_small_run_47338_def
    mozjs_small_run_47374_def mozjs_small_run_47410_def mozjs_small_run_47446_def

lemmas mozjs_small_table_311_defs =
  mozjs_small_table_311_def mozjs_small_run_47482_def mozjs_small_run_47518_def
    mozjs_small_run_47554_def mozjs_small_run_47590_def mozjs_small_run_47623_def

lemmas mozjs_small_table_312_defs =
  mozjs_small_table_312_def mozjs_small_run_47656_def mozjs_small_run_47689_def
    mozjs_small_run_47722_def mozjs_small_run_47755_def mozjs_small_run_47788_def

lemmas mozjs_small_table_313_defs =
  mozjs_small_table_313_def mozjs_small_run_47821_def mozjs_small_run_47854_def
    mozjs_small_run_47887_def mozjs_small_run_47920_def mozjs_small_run_47953_def

lemmas mozjs_small_table_314_defs =
  mozjs_small_table_314_def mozjs_small_run_47986_def mozjs_small_run_48019_def
    mozjs_small_run_48052_def mozjs_small_run_48085_def mozjs_small_run_48118_def

lemmas mozjs_small_table_315_defs =
  mozjs_small_table_315_def mozjs_small_run_48151_def mozjs_small_run_48184_def
    mozjs_small_run_48206_def mozjs_small_run_48228_def mozjs_small_run_48250_def
    mozjs_small_run_48272_def mozjs_small_run_48294_def

lemmas mozjs_small_table_316_defs =
  mozjs_small_table_316_def mozjs_small_run_48316_def mozjs_small_run_48353_def
    mozjs_small_run_48389_def mozjs_small_run_48425_def mozjs_small_run_48455_def
    mozjs_small_run_48485_def

lemmas mozjs_small_table_317_defs =
  mozjs_small_table_317_def mozjs_small_run_48515_def mozjs_small_run_48551_def
    mozjs_small_run_48581_def mozjs_small_run_48611_def mozjs_small_run_48641_def
    mozjs_small_run_48677_def

lemmas mozjs_small_table_318_defs =
  mozjs_small_table_318_def mozjs_small_run_48707_def mozjs_small_run_48737_def
    mozjs_small_run_48770_def mozjs_small_run_48803_def mozjs_small_run_48836_def
    mozjs_small_run_48869_def

lemmas mozjs_small_table_319_defs =
  mozjs_small_table_319_def mozjs_small_run_48902_def mozjs_small_run_48929_def
    mozjs_small_run_48962_def mozjs_small_run_48995_def mozjs_small_run_49028_def
    mozjs_small_run_49058_def

lemmas mozjs_small_table_320_defs =
  mozjs_small_table_320_def mozjs_small_run_49086_def mozjs_small_run_49116_def
    mozjs_small_run_49146_def mozjs_small_run_49176_def mozjs_small_run_49206_def
    mozjs_small_run_49236_def mozjs_small_run_49266_def

lemmas mozjs_small_table_321_defs =
  mozjs_small_table_321_def mozjs_small_run_49292_def mozjs_small_run_49322_def
    mozjs_small_run_49352_def mozjs_small_run_49382_def mozjs_small_run_49410_def
    mozjs_small_run_49440_def mozjs_small_run_49470_def

lemmas mozjs_small_table_322_defs =
  mozjs_small_table_322_def mozjs_small_run_49500_def mozjs_small_run_49530_def
    mozjs_small_run_49560_def mozjs_small_run_49590_def mozjs_small_run_49620_def
    mozjs_small_run_49650_def mozjs_small_run_49680_def

lemmas mozjs_small_table_323_defs =
  mozjs_small_table_323_def mozjs_small_run_49710_def mozjs_small_run_49736_def
    mozjs_small_run_49766_def mozjs_small_run_49791_def mozjs_small_run_49818_def
    mozjs_small_run_49843_def mozjs_small_run_49868_def mozjs_small_run_49893_def

lemmas mozjs_small_table_324_defs =
  mozjs_small_table_324_def mozjs_small_run_49918_def mozjs_small_run_49943_def
    mozjs_small_run_49968_def mozjs_small_run_49995_def mozjs_small_run_50020_def
    mozjs_small_run_50045_def mozjs_small_run_50067_def mozjs_small_run_50085_def

lemmas mozjs_small_table_325_defs =
  mozjs_small_table_325_def mozjs_small_run_50109_def mozjs_small_run_50131_def
    mozjs_small_run_50153_def mozjs_small_run_50175_def mozjs_small_run_50189_def
    mozjs_small_run_50209_def mozjs_small_run_50229_def mozjs_small_run_50243_def
    mozjs_small_run_50257_def mozjs_small_run_50277_def

lemmas mozjs_small_table_326_defs =
  mozjs_small_table_326_def mozjs_small_run_50301_def mozjs_small_run_50323_def
    mozjs_small_run_50345_def mozjs_small_run_50363_def mozjs_small_run_50387_def
    mozjs_small_run_50401_def mozjs_small_run_50425_def mozjs_small_run_50449_def
    mozjs_small_run_50473_def

lemmas mozjs_small_table_327_defs =
  mozjs_small_table_327_def mozjs_small_run_50487_def mozjs_small_run_50511_def
    mozjs_small_run_50532_def mozjs_small_run_50549_def mozjs_small_run_50568_def
    mozjs_small_run_50581_def mozjs_small_run_50600_def mozjs_small_run_50621_def
    mozjs_small_run_50640_def mozjs_small_run_50659_def

lemmas mozjs_small_table_328_defs =
  mozjs_small_table_328_def mozjs_small_run_50678_def mozjs_small_run_50691_def
    mozjs_small_run_50706_def mozjs_small_run_50721_def mozjs_small_run_50740_def
    mozjs_small_run_50753_def mozjs_small_run_50772_def mozjs_small_run_50793_def
    mozjs_small_run_50814_def mozjs_small_run_50827_def mozjs_small_run_50840_def

lemmas mozjs_small_table_329_defs =
  mozjs_small_table_329_def mozjs_small_run_50853_def mozjs_small_run_50872_def
    mozjs_small_run_50885_def mozjs_small_run_50904_def mozjs_small_run_50923_def
    mozjs_small_run_50936_def mozjs_small_run_50955_def mozjs_small_run_50968_def
    mozjs_small_run_50981_def mozjs_small_run_51001_def mozjs_small_run_51021_def

lemmas mozjs_small_table_330_defs =
  mozjs_small_table_330_def mozjs_small_run_51035_def mozjs_small_run_51055_def
    mozjs_small_run_51069_def mozjs_small_run_51083_def mozjs_small_run_51097_def
    mozjs_small_run_51117_def mozjs_small_run_51129_def mozjs_small_run_51143_def
    mozjs_small_run_51159_def mozjs_small_run_51173_def mozjs_small_run_51193_def
    mozjs_small_run_51207_def

lemmas mozjs_small_table_331_defs =
  mozjs_small_table_331_def mozjs_small_run_51221_def mozjs_small_run_51241_def
    mozjs_small_run_51261_def mozjs_small_run_51281_def mozjs_small_run_51301_def
    mozjs_small_run_51315_def mozjs_small_run_51335_def mozjs_small_run_51351_def
    mozjs_small_run_51371_def mozjs_small_run_51389_def mozjs_small_run_51409_def

lemmas mozjs_small_table_332_defs =
  mozjs_small_table_332_def mozjs_small_run_51425_def mozjs_small_run_51445_def
    mozjs_small_run_51459_def mozjs_small_run_51479_def mozjs_small_run_51493_def
    mozjs_small_run_51509_def mozjs_small_run_51525_def mozjs_small_run_51545_def
    mozjs_small_run_51565_def mozjs_small_run_51579_def mozjs_small_run_51593_def
    mozjs_small_run_51605_def

lemmas mozjs_small_table_333_defs =
  mozjs_small_table_333_def mozjs_small_run_51619_def mozjs_small_run_51633_def
    mozjs_small_run_51647_def mozjs_small_run_51661_def mozjs_small_run_51675_def
    mozjs_small_run_51689_def mozjs_small_run_51703_def mozjs_small_run_51717_def
    mozjs_small_run_51731_def mozjs_small_run_51745_def mozjs_small_run_51765_def
    mozjs_small_run_51785_def

lemmas mozjs_small_table_334_defs =
  mozjs_small_table_334_def mozjs_small_run_51799_def mozjs_small_run_51819_def
    mozjs_small_run_51833_def mozjs_small_run_51847_def mozjs_small_run_51861_def
    mozjs_small_run_51881_def mozjs_small_run_51895_def mozjs_small_run_51909_def
    mozjs_small_run_51923_def mozjs_small_run_51937_def mozjs_small_run_51951_def
    mozjs_small_run_51965_def mozjs_small_run_51979_def

lemmas mozjs_small_table_335_defs =
  mozjs_small_table_335_def mozjs_small_run_51993_def mozjs_small_run_52007_def
    mozjs_small_run_52027_def mozjs_small_run_52039_def mozjs_small_run_52059_def
    mozjs_small_run_52076_def mozjs_small_run_52093_def mozjs_small_run_52110_def
    mozjs_small_run_52127_def mozjs_small_run_52144_def mozjs_small_run_52159_def
    mozjs_small_run_52176_def

lemmas mozjs_small_table_336_defs =
  mozjs_small_table_336_def mozjs_small_run_52193_def mozjs_small_run_52210_def
    mozjs_small_run_52225_def mozjs_small_run_52242_def mozjs_small_run_52257_def
    mozjs_small_run_52272_def mozjs_small_run_52289_def mozjs_small_run_52304_def
    mozjs_small_run_52321_def mozjs_small_run_52338_def mozjs_small_run_52355_def
    mozjs_small_run_52372_def mozjs_small_run_52387_def

lemmas mozjs_small_table_337_defs =
  mozjs_small_table_337_def mozjs_small_run_52402_def mozjs_small_run_52419_def
    mozjs_small_run_52438_def mozjs_small_run_52457_def mozjs_small_run_52468_def
    mozjs_small_run_52483_def mozjs_small_run_52498_def mozjs_small_run_52511_def
    mozjs_small_run_52528_def mozjs_small_run_52545_def mozjs_small_run_52562_def
    mozjs_small_run_52579_def

lemmas mozjs_small_table_338_defs =
  mozjs_small_table_338_def mozjs_small_run_52598_def mozjs_small_run_52617_def
    mozjs_small_run_52636_def mozjs_small_run_52653_def mozjs_small_run_52670_def
    mozjs_small_run_52685_def mozjs_small_run_52702_def mozjs_small_run_52719_def
    mozjs_small_run_52736_def mozjs_small_run_52751_def mozjs_small_run_52766_def
    mozjs_small_run_52785_def

lemmas mozjs_small_table_339_defs =
  mozjs_small_table_339_def mozjs_small_run_52800_def mozjs_small_run_52817_def
    mozjs_small_run_52832_def mozjs_small_run_52849_def mozjs_small_run_52866_def
    mozjs_small_run_52881_def mozjs_small_run_52898_def mozjs_small_run_52915_def
    mozjs_small_run_52926_def mozjs_small_run_52941_def mozjs_small_run_52958_def
    mozjs_small_run_52975_def mozjs_small_run_52992_def

lemmas mozjs_small_table_340_defs =
  mozjs_small_table_340_def mozjs_small_run_53009_def mozjs_small_run_53026_def
    mozjs_small_run_53041_def mozjs_small_run_53058_def mozjs_small_run_53075_def
    mozjs_small_run_53086_def mozjs_small_run_53097_def mozjs_small_run_53108_def
    mozjs_small_run_53125_def mozjs_small_run_53140_def mozjs_small_run_53157_def
    mozjs_small_run_53172_def mozjs_small_run_53189_def

lemmas mozjs_small_table_341_defs =
  mozjs_small_table_341_def mozjs_small_run_53206_def mozjs_small_run_53221_def
    mozjs_small_run_53238_def mozjs_small_run_53255_def mozjs_small_run_53266_def
    mozjs_small_run_53281_def mozjs_small_run_53294_def mozjs_small_run_53311_def
    mozjs_small_run_53328_def mozjs_small_run_53345_def mozjs_small_run_53362_def
    mozjs_small_run_53377_def mozjs_small_run_53394_def

lemmas mozjs_small_table_342_defs =
  mozjs_small_table_342_def mozjs_small_run_53408_def mozjs_small_run_53420_def
    mozjs_small_run_53434_def mozjs_small_run_53448_def mozjs_small_run_53462_def
    mozjs_small_run_53476_def mozjs_small_run_53490_def mozjs_small_run_53504_def
    mozjs_small_run_53518_def mozjs_small_run_53530_def mozjs_small_run_53544_def
    mozjs_small_run_53558_def mozjs_small_run_53572_def mozjs_small_run_53584_def
    mozjs_small_run_53598_def

lemmas mozjs_small_table_343_defs =
  mozjs_small_table_343_def mozjs_small_run_53612_def mozjs_small_run_53626_def
    mozjs_small_run_53640_def mozjs_small_run_53654_def mozjs_small_run_53668_def
    mozjs_small_run_53682_def mozjs_small_run_53696_def mozjs_small_run_53710_def
    mozjs_small_run_53724_def mozjs_small_run_53738_def mozjs_small_run_53752_def
    mozjs_small_run_53766_def mozjs_small_run_53780_def mozjs_small_run_53794_def
    mozjs_small_run_53808_def

lemmas mozjs_small_table_344_defs =
  mozjs_small_table_344_def mozjs_small_run_53822_def mozjs_small_run_53836_def
    mozjs_small_run_53850_def mozjs_small_run_53864_def mozjs_small_run_53878_def
    mozjs_small_run_53892_def mozjs_small_run_53906_def mozjs_small_run_53916_def
    mozjs_small_run_53930_def mozjs_small_run_53942_def mozjs_small_run_53952_def
    mozjs_small_run_53966_def mozjs_small_run_53980_def mozjs_small_run_53994_def
    mozjs_small_run_54008_def

lemmas mozjs_small_table_345_defs =
  mozjs_small_table_345_def mozjs_small_run_54022_def mozjs_small_run_54032_def
    mozjs_small_run_54046_def mozjs_small_run_54060_def mozjs_small_run_54070_def
    mozjs_small_run_54080_def mozjs_small_run_54094_def mozjs_small_run_54108_def
    mozjs_small_run_54122_def mozjs_small_run_54136_def mozjs_small_run_54150_def
    mozjs_small_run_54164_def mozjs_small_run_54178_def mozjs_small_run_54192_def
    mozjs_small_run_54206_def

lemmas mozjs_small_table_346_defs =
  mozjs_small_table_346_def mozjs_small_run_54220_def mozjs_small_run_54234_def
    mozjs_small_run_54248_def mozjs_small_run_54262_def mozjs_small_run_54272_def
    mozjs_small_run_54284_def mozjs_small_run_54296_def mozjs_small_run_54310_def
    mozjs_small_run_54322_def mozjs_small_run_54336_def mozjs_small_run_54350_def
    mozjs_small_run_54362_def mozjs_small_run_54376_def mozjs_small_run_54390_def
    mozjs_small_run_54404_def

lemmas mozjs_small_table_347_defs =
  mozjs_small_table_347_def mozjs_small_run_54418_def mozjs_small_run_54432_def
    mozjs_small_run_54446_def mozjs_small_run_54460_def mozjs_small_run_54472_def
    mozjs_small_run_54486_def mozjs_small_run_54496_def mozjs_small_run_54506_def
    mozjs_small_run_54518_def mozjs_small_run_54532_def mozjs_small_run_54544_def
    mozjs_small_run_54556_def mozjs_small_run_54570_def mozjs_small_run_54582_def
    mozjs_small_run_54596_def

lemmas mozjs_small_table_348_defs =
  mozjs_small_table_348_def mozjs_small_run_54610_def mozjs_small_run_54624_def
    mozjs_small_run_54638_def mozjs_small_run_54650_def mozjs_small_run_54664_def
    mozjs_small_run_54676_def mozjs_small_run_54690_def mozjs_small_run_54702_def
    mozjs_small_run_54716_def mozjs_small_run_54726_def mozjs_small_run_54740_def
    mozjs_small_run_54751_def mozjs_small_run_54760_def mozjs_small_run_54771_def
    mozjs_small_run_54782_def mozjs_small_run_54793_def mozjs_small_run_54804_def

lemmas mozjs_small_table_349_defs =
  mozjs_small_table_349_def mozjs_small_run_54813_def mozjs_small_run_54824_def
    mozjs_small_run_54835_def mozjs_small_run_54846_def mozjs_small_run_54857_def
    mozjs_small_run_54868_def mozjs_small_run_54879_def mozjs_small_run_54890_def
    mozjs_small_run_54901_def mozjs_small_run_54912_def mozjs_small_run_54923_def
    mozjs_small_run_54934_def mozjs_small_run_54945_def mozjs_small_run_54956_def
    mozjs_small_run_54967_def mozjs_small_run_54978_def mozjs_small_run_54989_def
    mozjs_small_run_55000_def mozjs_small_run_55009_def

lemmas mozjs_small_table_350_defs =
  mozjs_small_table_350_def mozjs_small_run_55018_def mozjs_small_run_55029_def
    mozjs_small_run_55040_def mozjs_small_run_55051_def mozjs_small_run_55060_def
    mozjs_small_run_55071_def mozjs_small_run_55082_def mozjs_small_run_55091_def
    mozjs_small_run_55102_def mozjs_small_run_55113_def mozjs_small_run_55124_def
    mozjs_small_run_55135_def mozjs_small_run_55146_def mozjs_small_run_55155_def
    mozjs_small_run_55166_def mozjs_small_run_55177_def mozjs_small_run_55188_def
    mozjs_small_run_55199_def mozjs_small_run_55210_def

lemmas mozjs_small_table_351_defs =
  mozjs_small_table_351_def mozjs_small_run_55221_def mozjs_small_run_55232_def
    mozjs_small_run_55243_def mozjs_small_run_55254_def mozjs_small_run_55265_def
    mozjs_small_run_55274_def mozjs_small_run_55285_def mozjs_small_run_55296_def
    mozjs_small_run_55307_def mozjs_small_run_55318_def mozjs_small_run_55329_def
    mozjs_small_run_55338_def mozjs_small_run_55349_def mozjs_small_run_55360_def
    mozjs_small_run_55371_def mozjs_small_run_55382_def mozjs_small_run_55393_def
    mozjs_small_run_55404_def mozjs_small_run_55415_def

lemmas mozjs_small_table_352_defs =
  mozjs_small_table_352_def mozjs_small_run_55426_def mozjs_small_run_55437_def
    mozjs_small_run_55448_def mozjs_small_run_55459_def mozjs_small_run_55470_def
    mozjs_small_run_55481_def mozjs_small_run_55492_def mozjs_small_run_55503_def
    mozjs_small_run_55512_def mozjs_small_run_55521_def mozjs_small_run_55532_def
    mozjs_small_run_55543_def mozjs_small_run_55554_def mozjs_small_run_55565_def
    mozjs_small_run_55576_def mozjs_small_run_55587_def mozjs_small_run_55598_def
    mozjs_small_run_55609_def mozjs_small_run_55620_def

lemmas mozjs_small_table_353_defs =
  mozjs_small_table_353_def mozjs_small_run_55631_def mozjs_small_run_55642_def
    mozjs_small_run_55653_def mozjs_small_run_55664_def mozjs_small_run_55675_def
    mozjs_small_run_55686_def mozjs_small_run_55697_def mozjs_small_run_55708_def
    mozjs_small_run_55719_def mozjs_small_run_55730_def mozjs_small_run_55741_def
    mozjs_small_run_55752_def mozjs_small_run_55763_def mozjs_small_run_55774_def
    mozjs_small_run_55785_def mozjs_small_run_55796_def mozjs_small_run_55807_def
    mozjs_small_run_55818_def

lemmas mozjs_small_table_354_defs =
  mozjs_small_table_354_def mozjs_small_run_55827_def mozjs_small_run_55838_def
    mozjs_small_run_55849_def mozjs_small_run_55860_def mozjs_small_run_55871_def
    mozjs_small_run_55882_def mozjs_small_run_55893_def mozjs_small_run_55904_def
    mozjs_small_run_55915_def mozjs_small_run_55926_def mozjs_small_run_55935_def
    mozjs_small_run_55946_def mozjs_small_run_55957_def mozjs_small_run_55968_def
    mozjs_small_run_55979_def mozjs_small_run_55990_def mozjs_small_run_56001_def
    mozjs_small_run_56012_def

lemmas mozjs_small_table_355_defs =
  mozjs_small_table_355_def mozjs_small_run_56023_def mozjs_small_run_56034_def
    mozjs_small_run_56045_def mozjs_small_run_56056_def mozjs_small_run_56067_def
    mozjs_small_run_56078_def mozjs_small_run_56089_def mozjs_small_run_56100_def
    mozjs_small_run_56111_def mozjs_small_run_56122_def mozjs_small_run_56133_def
    mozjs_small_run_56144_def mozjs_small_run_56153_def mozjs_small_run_56162_def
    mozjs_small_run_56173_def mozjs_small_run_56184_def mozjs_small_run_56195_def
    mozjs_small_run_56206_def mozjs_small_run_56217_def

lemmas mozjs_small_table_356_defs =
  mozjs_small_table_356_def mozjs_small_run_56226_def mozjs_small_run_56237_def
    mozjs_small_run_56248_def mozjs_small_run_56259_def mozjs_small_run_56270_def
    mozjs_small_run_56279_def mozjs_small_run_56290_def mozjs_small_run_56301_def
    mozjs_small_run_56312_def mozjs_small_run_56323_def mozjs_small_run_56334_def
    mozjs_small_run_56345_def mozjs_small_run_56356_def mozjs_small_run_56365_def
    mozjs_small_run_56376_def mozjs_small_run_56385_def mozjs_small_run_56396_def
    mozjs_small_run_56407_def mozjs_small_run_56418_def

lemmas mozjs_small_table_357_defs =
  mozjs_small_table_357_def mozjs_small_run_56429_def mozjs_small_run_56438_def
    mozjs_small_run_56447_def mozjs_small_run_56456_def mozjs_small_run_56465_def
    mozjs_small_run_56476_def mozjs_small_run_56487_def mozjs_small_run_56498_def
    mozjs_small_run_56509_def mozjs_small_run_56520_def mozjs_small_run_56531_def
    mozjs_small_run_56542_def mozjs_small_run_56553_def mozjs_small_run_56564_def
    mozjs_small_run_56575_def mozjs_small_run_56586_def mozjs_small_run_56597_def
    mozjs_small_run_56608_def mozjs_small_run_56619_def

lemmas mozjs_small_table_358_defs =
  mozjs_small_table_358_def mozjs_small_run_56630_def mozjs_small_run_56639_def
    mozjs_small_run_56648_def mozjs_small_run_56657_def mozjs_small_run_56668_def
    mozjs_small_run_56679_def mozjs_small_run_56690_def mozjs_small_run_56701_def
    mozjs_small_run_56712_def mozjs_small_run_56723_def mozjs_small_run_56734_def
    mozjs_small_run_56745_def mozjs_small_run_56756_def mozjs_small_run_56767_def
    mozjs_small_run_56778_def mozjs_small_run_56789_def mozjs_small_run_56800_def
    mozjs_small_run_56811_def mozjs_small_run_56822_def

lemmas mozjs_small_table_359_defs =
  mozjs_small_table_359_def mozjs_small_run_56833_def mozjs_small_run_56844_def
    mozjs_small_run_56855_def mozjs_small_run_56866_def mozjs_small_run_56877_def
    mozjs_small_run_56888_def mozjs_small_run_56899_def mozjs_small_run_56910_def
    mozjs_small_run_56921_def mozjs_small_run_56932_def mozjs_small_run_56943_def
    mozjs_small_run_56954_def mozjs_small_run_56965_def mozjs_small_run_56976_def
    mozjs_small_run_56987_def mozjs_small_run_56998_def mozjs_small_run_57007_def
    mozjs_small_run_57018_def

lemmas mozjs_small_table_360_defs =
  mozjs_small_table_360_def mozjs_small_run_57029_def mozjs_small_run_57040_def
    mozjs_small_run_57051_def mozjs_small_run_57062_def mozjs_small_run_57073_def
    mozjs_small_run_57084_def mozjs_small_run_57095_def mozjs_small_run_57106_def
    mozjs_small_run_57117_def mozjs_small_run_57128_def mozjs_small_run_57139_def
    mozjs_small_run_57150_def mozjs_small_run_57161_def mozjs_small_run_57170_def
    mozjs_small_run_57181_def mozjs_small_run_57192_def mozjs_small_run_57201_def
    mozjs_small_run_57210_def mozjs_small_run_57221_def

lemmas mozjs_small_table_361_defs =
  mozjs_small_table_361_def mozjs_small_run_57230_def mozjs_small_run_57241_def
    mozjs_small_run_57252_def mozjs_small_run_57261_def mozjs_small_run_57272_def
    mozjs_small_run_57283_def mozjs_small_run_57292_def mozjs_small_run_57303_def
    mozjs_small_run_57314_def mozjs_small_run_57323_def mozjs_small_run_57334_def
    mozjs_small_run_57345_def mozjs_small_run_57354_def mozjs_small_run_57365_def
    mozjs_small_run_57376_def mozjs_small_run_57387_def mozjs_small_run_57396_def
    mozjs_small_run_57404_def mozjs_small_run_57412_def mozjs_small_run_57420_def

lemmas mozjs_small_table_362_defs =
  mozjs_small_table_362_def mozjs_small_run_57430_def mozjs_small_run_57438_def
    mozjs_small_run_57446_def mozjs_small_run_57454_def mozjs_small_run_57462_def
    mozjs_small_run_57470_def mozjs_small_run_57478_def mozjs_small_run_57486_def
    mozjs_small_run_57494_def mozjs_small_run_57502_def mozjs_small_run_57510_def
    mozjs_small_run_57518_def mozjs_small_run_57526_def mozjs_small_run_57536_def
    mozjs_small_run_57544_def mozjs_small_run_57552_def mozjs_small_run_57560_def
    mozjs_small_run_57568_def mozjs_small_run_57576_def mozjs_small_run_57584_def
    mozjs_small_run_57592_def mozjs_small_run_57600_def mozjs_small_run_57608_def
    mozjs_small_run_57616_def

lemmas mozjs_small_table_363_defs =
  mozjs_small_table_363_def mozjs_small_run_57624_def mozjs_small_run_57632_def
    mozjs_small_run_57640_def mozjs_small_run_57648_def mozjs_small_run_57656_def
    mozjs_small_run_57664_def mozjs_small_run_57672_def mozjs_small_run_57680_def
    mozjs_small_run_57688_def mozjs_small_run_57696_def mozjs_small_run_57706_def
    mozjs_small_run_57714_def mozjs_small_run_57722_def mozjs_small_run_57730_def
    mozjs_small_run_57738_def mozjs_small_run_57746_def mozjs_small_run_57754_def
    mozjs_small_run_57764_def mozjs_small_run_57772_def mozjs_small_run_57780_def
    mozjs_small_run_57788_def mozjs_small_run_57796_def mozjs_small_run_57804_def
    mozjs_small_run_57812_def

lemmas mozjs_small_table_364_defs =
  mozjs_small_table_364_def mozjs_small_run_57820_def mozjs_small_run_57828_def
    mozjs_small_run_57836_def mozjs_small_run_57844_def mozjs_small_run_57852_def
    mozjs_small_run_57860_def mozjs_small_run_57868_def mozjs_small_run_57876_def
    mozjs_small_run_57884_def mozjs_small_run_57892_def mozjs_small_run_57900_def
    mozjs_small_run_57908_def mozjs_small_run_57916_def mozjs_small_run_57924_def
    mozjs_small_run_57932_def mozjs_small_run_57942_def mozjs_small_run_57950_def
    mozjs_small_run_57958_def mozjs_small_run_57966_def mozjs_small_run_57974_def
    mozjs_small_run_57982_def mozjs_small_run_57990_def mozjs_small_run_57998_def
    mozjs_small_run_58006_def

lemmas mozjs_small_table_365_defs =
  mozjs_small_table_365_def mozjs_small_run_58014_def mozjs_small_run_58022_def
    mozjs_small_run_58030_def mozjs_small_run_58040_def mozjs_small_run_58048_def
    mozjs_small_run_58056_def mozjs_small_run_58064_def mozjs_small_run_58072_def
    mozjs_small_run_58080_def mozjs_small_run_58088_def mozjs_small_run_58096_def
    mozjs_small_run_58104_def mozjs_small_run_58112_def mozjs_small_run_58120_def
    mozjs_small_run_58128_def mozjs_small_run_58136_def mozjs_small_run_58144_def
    mozjs_small_run_58152_def mozjs_small_run_58160_def mozjs_small_run_58168_def
    mozjs_small_run_58176_def mozjs_small_run_58184_def mozjs_small_run_58194_def
    mozjs_small_run_58202_def

lemmas mozjs_small_table_366_defs =
  mozjs_small_table_366_def mozjs_small_run_58210_def mozjs_small_run_58220_def
    mozjs_small_run_58228_def mozjs_small_run_58236_def mozjs_small_run_58244_def
    mozjs_small_run_58252_def mozjs_small_run_58260_def mozjs_small_run_58268_def
    mozjs_small_run_58276_def mozjs_small_run_58284_def mozjs_small_run_58292_def
    mozjs_small_run_58300_def mozjs_small_run_58308_def mozjs_small_run_58316_def
    mozjs_small_run_58324_def mozjs_small_run_58332_def mozjs_small_run_58340_def
    mozjs_small_run_58348_def mozjs_small_run_58356_def mozjs_small_run_58364_def
    mozjs_small_run_58372_def mozjs_small_run_58380_def

section \<open>The runs follow each other\<close>

lemma mozjs_small_table_0_follows: "contiguous_to 0 mozjs_small_table_0 160"
  by (simp add: mozjs_small_table_0_defs)

lemma mozjs_small_table_1_follows: "contiguous_to 160 mozjs_small_table_1 318"
  by (simp add: mozjs_small_table_1_defs)

lemma mozjs_small_table_2_follows: "contiguous_to 318 mozjs_small_table_2 480"
  by (simp add: mozjs_small_table_2_defs)

lemma mozjs_small_table_3_follows: "contiguous_to 480 mozjs_small_table_3 622"
  by (simp add: mozjs_small_table_3_defs)

lemma mozjs_small_table_4_follows: "contiguous_to 622 mozjs_small_table_4 766"
  by (simp add: mozjs_small_table_4_defs)

lemma mozjs_small_table_5_follows: "contiguous_to 766 mozjs_small_table_5 910"
  by (simp add: mozjs_small_table_5_defs)

lemma mozjs_small_table_6_follows: "contiguous_to 910 mozjs_small_table_6 1056"
  by (simp add: mozjs_small_table_6_defs)

lemma mozjs_small_table_7_follows: "contiguous_to 1056 mozjs_small_table_7 1204"
  by (simp add: mozjs_small_table_7_defs)

lemma mozjs_small_table_8_follows: "contiguous_to 1204 mozjs_small_table_8 1350"
  by (simp add: mozjs_small_table_8_defs)

lemma mozjs_small_table_9_follows: "contiguous_to 1350 mozjs_small_table_9 1496"
  by (simp add: mozjs_small_table_9_defs)

lemma mozjs_small_table_10_follows: "contiguous_to 1496 mozjs_small_table_10 1640"
  by (simp add: mozjs_small_table_10_defs)

lemma mozjs_small_table_11_follows: "contiguous_to 1640 mozjs_small_table_11 1780"
  by (simp add: mozjs_small_table_11_defs)

lemma mozjs_small_table_12_follows: "contiguous_to 1780 mozjs_small_table_12 1920"
  by (simp add: mozjs_small_table_12_defs)

lemma mozjs_small_table_13_follows: "contiguous_to 1920 mozjs_small_table_13 2060"
  by (simp add: mozjs_small_table_13_defs)

lemma mozjs_small_table_14_follows: "contiguous_to 2060 mozjs_small_table_14 2200"
  by (simp add: mozjs_small_table_14_defs)

lemma mozjs_small_table_15_follows: "contiguous_to 2200 mozjs_small_table_15 2340"
  by (simp add: mozjs_small_table_15_defs)

lemma mozjs_small_table_16_follows: "contiguous_to 2340 mozjs_small_table_16 2480"
  by (simp add: mozjs_small_table_16_defs)

lemma mozjs_small_table_17_follows: "contiguous_to 2480 mozjs_small_table_17 2620"
  by (simp add: mozjs_small_table_17_defs)

lemma mozjs_small_table_18_follows: "contiguous_to 2620 mozjs_small_table_18 2760"
  by (simp add: mozjs_small_table_18_defs)

lemma mozjs_small_table_19_follows: "contiguous_to 2760 mozjs_small_table_19 2900"
  by (simp add: mozjs_small_table_19_defs)

lemma mozjs_small_table_20_follows: "contiguous_to 2900 mozjs_small_table_20 3040"
  by (simp add: mozjs_small_table_20_defs)

lemma mozjs_small_table_21_follows: "contiguous_to 3040 mozjs_small_table_21 3180"
  by (simp add: mozjs_small_table_21_defs)

lemma mozjs_small_table_22_follows: "contiguous_to 3180 mozjs_small_table_22 3320"
  by (simp add: mozjs_small_table_22_defs)

lemma mozjs_small_table_23_follows: "contiguous_to 3320 mozjs_small_table_23 3460"
  by (simp add: mozjs_small_table_23_defs)

lemma mozjs_small_table_24_follows: "contiguous_to 3460 mozjs_small_table_24 3600"
  by (simp add: mozjs_small_table_24_defs)

lemma mozjs_small_table_25_follows: "contiguous_to 3600 mozjs_small_table_25 3740"
  by (simp add: mozjs_small_table_25_defs)

lemma mozjs_small_table_26_follows: "contiguous_to 3740 mozjs_small_table_26 3896"
  by (simp add: mozjs_small_table_26_defs)

lemma mozjs_small_table_27_follows: "contiguous_to 3896 mozjs_small_table_27 4036"
  by (simp add: mozjs_small_table_27_defs)

lemma mozjs_small_table_28_follows: "contiguous_to 4036 mozjs_small_table_28 4192"
  by (simp add: mozjs_small_table_28_defs)

lemma mozjs_small_table_29_follows: "contiguous_to 4192 mozjs_small_table_29 4332"
  by (simp add: mozjs_small_table_29_defs)

lemma mozjs_small_table_30_follows: "contiguous_to 4332 mozjs_small_table_30 4472"
  by (simp add: mozjs_small_table_30_defs)

lemma mozjs_small_table_31_follows: "contiguous_to 4472 mozjs_small_table_31 4612"
  by (simp add: mozjs_small_table_31_defs)

lemma mozjs_small_table_32_follows: "contiguous_to 4612 mozjs_small_table_32 4772"
  by (simp add: mozjs_small_table_32_defs)

lemma mozjs_small_table_33_follows: "contiguous_to 4772 mozjs_small_table_33 4912"
  by (simp add: mozjs_small_table_33_defs)

lemma mozjs_small_table_34_follows: "contiguous_to 4912 mozjs_small_table_34 5052"
  by (simp add: mozjs_small_table_34_defs)

lemma mozjs_small_table_35_follows: "contiguous_to 5052 mozjs_small_table_35 5212"
  by (simp add: mozjs_small_table_35_defs)

lemma mozjs_small_table_36_follows: "contiguous_to 5212 mozjs_small_table_36 5352"
  by (simp add: mozjs_small_table_36_defs)

lemma mozjs_small_table_37_follows: "contiguous_to 5352 mozjs_small_table_37 5492"
  by (simp add: mozjs_small_table_37_defs)

lemma mozjs_small_table_38_follows: "contiguous_to 5492 mozjs_small_table_38 5632"
  by (simp add: mozjs_small_table_38_defs)

lemma mozjs_small_table_39_follows: "contiguous_to 5632 mozjs_small_table_39 5772"
  by (simp add: mozjs_small_table_39_defs)

lemma mozjs_small_table_40_follows: "contiguous_to 5772 mozjs_small_table_40 5912"
  by (simp add: mozjs_small_table_40_defs)

lemma mozjs_small_table_41_follows: "contiguous_to 5912 mozjs_small_table_41 6052"
  by (simp add: mozjs_small_table_41_defs)

lemma mozjs_small_table_42_follows: "contiguous_to 6052 mozjs_small_table_42 6192"
  by (simp add: mozjs_small_table_42_defs)

lemma mozjs_small_table_43_follows: "contiguous_to 6192 mozjs_small_table_43 6332"
  by (simp add: mozjs_small_table_43_defs)

lemma mozjs_small_table_44_follows: "contiguous_to 6332 mozjs_small_table_44 6472"
  by (simp add: mozjs_small_table_44_defs)

lemma mozjs_small_table_45_follows: "contiguous_to 6472 mozjs_small_table_45 6612"
  by (simp add: mozjs_small_table_45_defs)

lemma mozjs_small_table_46_follows: "contiguous_to 6612 mozjs_small_table_46 6752"
  by (simp add: mozjs_small_table_46_defs)

lemma mozjs_small_table_47_follows: "contiguous_to 6752 mozjs_small_table_47 6924"
  by (simp add: mozjs_small_table_47_defs)

lemma mozjs_small_table_48_follows: "contiguous_to 6924 mozjs_small_table_48 7080"
  by (simp add: mozjs_small_table_48_defs)

lemma mozjs_small_table_49_follows: "contiguous_to 7080 mozjs_small_table_49 7240"
  by (simp add: mozjs_small_table_49_defs)

lemma mozjs_small_table_50_follows: "contiguous_to 7240 mozjs_small_table_50 7414"
  by (simp add: mozjs_small_table_50_defs)

lemma mozjs_small_table_51_follows: "contiguous_to 7414 mozjs_small_table_51 7562"
  by (simp add: mozjs_small_table_51_defs)

lemma mozjs_small_table_52_follows: "contiguous_to 7562 mozjs_small_table_52 7694"
  by (simp add: mozjs_small_table_52_defs)

lemma mozjs_small_table_53_follows: "contiguous_to 7694 mozjs_small_table_53 7826"
  by (simp add: mozjs_small_table_53_defs)

lemma mozjs_small_table_54_follows: "contiguous_to 7826 mozjs_small_table_54 7974"
  by (simp add: mozjs_small_table_54_defs)

lemma mozjs_small_table_55_follows: "contiguous_to 7974 mozjs_small_table_55 8110"
  by (simp add: mozjs_small_table_55_defs)

lemma mozjs_small_table_56_follows: "contiguous_to 8110 mozjs_small_table_56 8257"
  by (simp add: mozjs_small_table_56_defs)

lemma mozjs_small_table_57_follows: "contiguous_to 8257 mozjs_small_table_57 8411"
  by (simp add: mozjs_small_table_57_defs)

lemma mozjs_small_table_58_follows: "contiguous_to 8411 mozjs_small_table_58 8547"
  by (simp add: mozjs_small_table_58_defs)

lemma mozjs_small_table_59_follows: "contiguous_to 8547 mozjs_small_table_59 8683"
  by (simp add: mozjs_small_table_59_defs)

lemma mozjs_small_table_60_follows: "contiguous_to 8683 mozjs_small_table_60 8813"
  by (simp add: mozjs_small_table_60_defs)

lemma mozjs_small_table_61_follows: "contiguous_to 8813 mozjs_small_table_61 8949"
  by (simp add: mozjs_small_table_61_defs)

lemma mozjs_small_table_62_follows: "contiguous_to 8949 mozjs_small_table_62 9079"
  by (simp add: mozjs_small_table_62_defs)

lemma mozjs_small_table_63_follows: "contiguous_to 9079 mozjs_small_table_63 9209"
  by (simp add: mozjs_small_table_63_defs)

lemma mozjs_small_table_64_follows: "contiguous_to 9209 mozjs_small_table_64 9339"
  by (simp add: mozjs_small_table_64_defs)

lemma mozjs_small_table_65_follows: "contiguous_to 9339 mozjs_small_table_65 9469"
  by (simp add: mozjs_small_table_65_defs)

lemma mozjs_small_table_66_follows: "contiguous_to 9469 mozjs_small_table_66 9599"
  by (simp add: mozjs_small_table_66_defs)

lemma mozjs_small_table_67_follows: "contiguous_to 9599 mozjs_small_table_67 9729"
  by (simp add: mozjs_small_table_67_defs)

lemma mozjs_small_table_68_follows: "contiguous_to 9729 mozjs_small_table_68 9862"
  by (simp add: mozjs_small_table_68_defs)

lemma mozjs_small_table_69_follows: "contiguous_to 9862 mozjs_small_table_69 9994"
  by (simp add: mozjs_small_table_69_defs)

lemma mozjs_small_table_70_follows: "contiguous_to 9994 mozjs_small_table_70 10136"
  by (simp add: mozjs_small_table_70_defs)

lemma mozjs_small_table_71_follows: "contiguous_to 10136 mozjs_small_table_71 10270"
  by (simp add: mozjs_small_table_71_defs)

lemma mozjs_small_table_72_follows: "contiguous_to 10270 mozjs_small_table_72 10402"
  by (simp add: mozjs_small_table_72_defs)

lemma mozjs_small_table_73_follows: "contiguous_to 10402 mozjs_small_table_73 10528"
  by (simp add: mozjs_small_table_73_defs)

lemma mozjs_small_table_74_follows: "contiguous_to 10528 mozjs_small_table_74 10668"
  by (simp add: mozjs_small_table_74_defs)

lemma mozjs_small_table_75_follows: "contiguous_to 10668 mozjs_small_table_75 10808"
  by (simp add: mozjs_small_table_75_defs)

lemma mozjs_small_table_76_follows: "contiguous_to 10808 mozjs_small_table_76 10948"
  by (simp add: mozjs_small_table_76_defs)

lemma mozjs_small_table_77_follows: "contiguous_to 10948 mozjs_small_table_77 11088"
  by (simp add: mozjs_small_table_77_defs)

lemma mozjs_small_table_78_follows: "contiguous_to 11088 mozjs_small_table_78 11214"
  by (simp add: mozjs_small_table_78_defs)

lemma mozjs_small_table_79_follows: "contiguous_to 11214 mozjs_small_table_79 11352"
  by (simp add: mozjs_small_table_79_defs)

lemma mozjs_small_table_80_follows: "contiguous_to 11352 mozjs_small_table_80 11494"
  by (simp add: mozjs_small_table_80_defs)

lemma mozjs_small_table_81_follows: "contiguous_to 11494 mozjs_small_table_81 11632"
  by (simp add: mozjs_small_table_81_defs)

lemma mozjs_small_table_82_follows: "contiguous_to 11632 mozjs_small_table_82 11774"
  by (simp add: mozjs_small_table_82_defs)

lemma mozjs_small_table_83_follows: "contiguous_to 11774 mozjs_small_table_83 11910"
  by (simp add: mozjs_small_table_83_defs)

lemma mozjs_small_table_84_follows: "contiguous_to 11910 mozjs_small_table_84 12048"
  by (simp add: mozjs_small_table_84_defs)

lemma mozjs_small_table_85_follows: "contiguous_to 12048 mozjs_small_table_85 12182"
  by (simp add: mozjs_small_table_85_defs)

lemma mozjs_small_table_86_follows: "contiguous_to 12182 mozjs_small_table_86 12323"
  by (simp add: mozjs_small_table_86_defs)

lemma mozjs_small_table_87_follows: "contiguous_to 12323 mozjs_small_table_87 12459"
  by (simp add: mozjs_small_table_87_defs)

lemma mozjs_small_table_88_follows: "contiguous_to 12459 mozjs_small_table_88 12596"
  by (simp add: mozjs_small_table_88_defs)

lemma mozjs_small_table_89_follows: "contiguous_to 12596 mozjs_small_table_89 12728"
  by (simp add: mozjs_small_table_89_defs)

lemma mozjs_small_table_90_follows: "contiguous_to 12728 mozjs_small_table_90 12862"
  by (simp add: mozjs_small_table_90_defs)

lemma mozjs_small_table_91_follows: "contiguous_to 12862 mozjs_small_table_91 12994"
  by (simp add: mozjs_small_table_91_defs)

lemma mozjs_small_table_92_follows: "contiguous_to 12994 mozjs_small_table_92 13130"
  by (simp add: mozjs_small_table_92_defs)

lemma mozjs_small_table_93_follows: "contiguous_to 13130 mozjs_small_table_93 13266"
  by (simp add: mozjs_small_table_93_defs)

lemma mozjs_small_table_94_follows: "contiguous_to 13266 mozjs_small_table_94 13398"
  by (simp add: mozjs_small_table_94_defs)

lemma mozjs_small_table_95_follows: "contiguous_to 13398 mozjs_small_table_95 13524"
  by (simp add: mozjs_small_table_95_defs)

lemma mozjs_small_table_96_follows: "contiguous_to 13524 mozjs_small_table_96 13647"
  by (simp add: mozjs_small_table_96_defs)

lemma mozjs_small_table_97_follows: "contiguous_to 13647 mozjs_small_table_97 13773"
  by (simp add: mozjs_small_table_97_defs)

lemma mozjs_small_table_98_follows: "contiguous_to 13773 mozjs_small_table_98 13895"
  by (simp add: mozjs_small_table_98_defs)

lemma mozjs_small_table_99_follows: "contiguous_to 13895 mozjs_small_table_99 14013"
  by (simp add: mozjs_small_table_99_defs)

lemma mozjs_small_table_100_follows: "contiguous_to 14013 mozjs_small_table_100 14172"
  by (simp add: mozjs_small_table_100_defs)

lemma mozjs_small_table_101_follows: "contiguous_to 14172 mozjs_small_table_101 14335"
  by (simp add: mozjs_small_table_101_defs)

lemma mozjs_small_table_102_follows: "contiguous_to 14335 mozjs_small_table_102 14485"
  by (simp add: mozjs_small_table_102_defs)

lemma mozjs_small_table_103_follows: "contiguous_to 14485 mozjs_small_table_103 14639"
  by (simp add: mozjs_small_table_103_defs)

lemma mozjs_small_table_104_follows: "contiguous_to 14639 mozjs_small_table_104 14789"
  by (simp add: mozjs_small_table_104_defs)

lemma mozjs_small_table_105_follows: "contiguous_to 14789 mozjs_small_table_105 14939"
  by (simp add: mozjs_small_table_105_defs)

lemma mozjs_small_table_106_follows: "contiguous_to 14939 mozjs_small_table_106 15089"
  by (simp add: mozjs_small_table_106_defs)

lemma mozjs_small_table_107_follows: "contiguous_to 15089 mozjs_small_table_107 15243"
  by (simp add: mozjs_small_table_107_defs)

lemma mozjs_small_table_108_follows: "contiguous_to 15243 mozjs_small_table_108 15393"
  by (simp add: mozjs_small_table_108_defs)

lemma mozjs_small_table_109_follows: "contiguous_to 15393 mozjs_small_table_109 15543"
  by (simp add: mozjs_small_table_109_defs)

lemma mozjs_small_table_110_follows: "contiguous_to 15543 mozjs_small_table_110 15693"
  by (simp add: mozjs_small_table_110_defs)

lemma mozjs_small_table_111_follows: "contiguous_to 15693 mozjs_small_table_111 15845"
  by (simp add: mozjs_small_table_111_defs)

lemma mozjs_small_table_112_follows: "contiguous_to 15845 mozjs_small_table_112 15995"
  by (simp add: mozjs_small_table_112_defs)

lemma mozjs_small_table_113_follows: "contiguous_to 15995 mozjs_small_table_113 16145"
  by (simp add: mozjs_small_table_113_defs)

lemma mozjs_small_table_114_follows: "contiguous_to 16145 mozjs_small_table_114 16295"
  by (simp add: mozjs_small_table_114_defs)

lemma mozjs_small_table_115_follows: "contiguous_to 16295 mozjs_small_table_115 16445"
  by (simp add: mozjs_small_table_115_defs)

lemma mozjs_small_table_116_follows: "contiguous_to 16445 mozjs_small_table_116 16595"
  by (simp add: mozjs_small_table_116_defs)

lemma mozjs_small_table_117_follows: "contiguous_to 16595 mozjs_small_table_117 16745"
  by (simp add: mozjs_small_table_117_defs)

lemma mozjs_small_table_118_follows: "contiguous_to 16745 mozjs_small_table_118 16895"
  by (simp add: mozjs_small_table_118_defs)

lemma mozjs_small_table_119_follows: "contiguous_to 16895 mozjs_small_table_119 17045"
  by (simp add: mozjs_small_table_119_defs)

lemma mozjs_small_table_120_follows: "contiguous_to 17045 mozjs_small_table_120 17199"
  by (simp add: mozjs_small_table_120_defs)

lemma mozjs_small_table_121_follows: "contiguous_to 17199 mozjs_small_table_121 17299"
  by (simp add: mozjs_small_table_121_defs)

lemma mozjs_small_table_122_follows: "contiguous_to 17299 mozjs_small_table_122 17425"
  by (simp add: mozjs_small_table_122_defs)

lemma mozjs_small_table_123_follows: "contiguous_to 17425 mozjs_small_table_123 17525"
  by (simp add: mozjs_small_table_123_defs)

lemma mozjs_small_table_124_follows: "contiguous_to 17525 mozjs_small_table_124 17681"
  by (simp add: mozjs_small_table_124_defs)

lemma mozjs_small_table_125_follows: "contiguous_to 17681 mozjs_small_table_125 17853"
  by (simp add: mozjs_small_table_125_defs)

lemma mozjs_small_table_126_follows: "contiguous_to 17853 mozjs_small_table_126 18003"
  by (simp add: mozjs_small_table_126_defs)

lemma mozjs_small_table_127_follows: "contiguous_to 18003 mozjs_small_table_127 18171"
  by (simp add: mozjs_small_table_127_defs)

lemma mozjs_small_table_128_follows: "contiguous_to 18171 mozjs_small_table_128 18331"
  by (simp add: mozjs_small_table_128_defs)

lemma mozjs_small_table_129_follows: "contiguous_to 18331 mozjs_small_table_129 18487"
  by (simp add: mozjs_small_table_129_defs)

lemma mozjs_small_table_130_follows: "contiguous_to 18487 mozjs_small_table_130 18625"
  by (simp add: mozjs_small_table_130_defs)

lemma mozjs_small_table_131_follows: "contiguous_to 18625 mozjs_small_table_131 18781"
  by (simp add: mozjs_small_table_131_defs)

lemma mozjs_small_table_132_follows: "contiguous_to 18781 mozjs_small_table_132 18967"
  by (simp add: mozjs_small_table_132_defs)

lemma mozjs_small_table_133_follows: "contiguous_to 18967 mozjs_small_table_133 19153"
  by (simp add: mozjs_small_table_133_defs)

lemma mozjs_small_table_134_follows: "contiguous_to 19153 mozjs_small_table_134 19339"
  by (simp add: mozjs_small_table_134_defs)

lemma mozjs_small_table_135_follows: "contiguous_to 19339 mozjs_small_table_135 19439"
  by (simp add: mozjs_small_table_135_defs)

lemma mozjs_small_table_136_follows: "contiguous_to 19439 mozjs_small_table_136 19569"
  by (simp add: mozjs_small_table_136_defs)

lemma mozjs_small_table_137_follows: "contiguous_to 19569 mozjs_small_table_137 19755"
  by (simp add: mozjs_small_table_137_defs)

lemma mozjs_small_table_138_follows: "contiguous_to 19755 mozjs_small_table_138 19905"
  by (simp add: mozjs_small_table_138_defs)

lemma mozjs_small_table_139_follows: "contiguous_to 19905 mozjs_small_table_139 20013"
  by (simp add: mozjs_small_table_139_defs)

lemma mozjs_small_table_140_follows: "contiguous_to 20013 mozjs_small_table_140 20155"
  by (simp add: mozjs_small_table_140_defs)

lemma mozjs_small_table_141_follows: "contiguous_to 20155 mozjs_small_table_141 20313"
  by (simp add: mozjs_small_table_141_defs)

lemma mozjs_small_table_142_follows: "contiguous_to 20313 mozjs_small_table_142 20469"
  by (simp add: mozjs_small_table_142_defs)

lemma mozjs_small_table_143_follows: "contiguous_to 20469 mozjs_small_table_143 20639"
  by (simp add: mozjs_small_table_143_defs)

lemma mozjs_small_table_144_follows: "contiguous_to 20639 mozjs_small_table_144 20777"
  by (simp add: mozjs_small_table_144_defs)

lemma mozjs_small_table_145_follows: "contiguous_to 20777 mozjs_small_table_145 20915"
  by (simp add: mozjs_small_table_145_defs)

lemma mozjs_small_table_146_follows: "contiguous_to 20915 mozjs_small_table_146 21011"
  by (simp add: mozjs_small_table_146_defs)

lemma mozjs_small_table_147_follows: "contiguous_to 21011 mozjs_small_table_147 21193"
  by (simp add: mozjs_small_table_147_defs)

lemma mozjs_small_table_148_follows: "contiguous_to 21193 mozjs_small_table_148 21325"
  by (simp add: mozjs_small_table_148_defs)

lemma mozjs_small_table_149_follows: "contiguous_to 21325 mozjs_small_table_149 21455"
  by (simp add: mozjs_small_table_149_defs)

lemma mozjs_small_table_150_follows: "contiguous_to 21455 mozjs_small_table_150 21607"
  by (simp add: mozjs_small_table_150_defs)

lemma mozjs_small_table_151_follows: "contiguous_to 21607 mozjs_small_table_151 21767"
  by (simp add: mozjs_small_table_151_defs)

lemma mozjs_small_table_152_follows: "contiguous_to 21767 mozjs_small_table_152 21915"
  by (simp add: mozjs_small_table_152_defs)

lemma mozjs_small_table_153_follows: "contiguous_to 21915 mozjs_small_table_153 22051"
  by (simp add: mozjs_small_table_153_defs)

lemma mozjs_small_table_154_follows: "contiguous_to 22051 mozjs_small_table_154 22229"
  by (simp add: mozjs_small_table_154_defs)

lemma mozjs_small_table_155_follows: "contiguous_to 22229 mozjs_small_table_155 22411"
  by (simp add: mozjs_small_table_155_defs)

lemma mozjs_small_table_156_follows: "contiguous_to 22411 mozjs_small_table_156 22549"
  by (simp add: mozjs_small_table_156_defs)

lemma mozjs_small_table_157_follows: "contiguous_to 22549 mozjs_small_table_157 22731"
  by (simp add: mozjs_small_table_157_defs)

lemma mozjs_small_table_158_follows: "contiguous_to 22731 mozjs_small_table_158 22869"
  by (simp add: mozjs_small_table_158_defs)

lemma mozjs_small_table_159_follows: "contiguous_to 22869 mozjs_small_table_159 23031"
  by (simp add: mozjs_small_table_159_defs)

lemma mozjs_small_table_160_follows: "contiguous_to 23031 mozjs_small_table_160 23172"
  by (simp add: mozjs_small_table_160_defs)

lemma mozjs_small_table_161_follows: "contiguous_to 23172 mozjs_small_table_161 23310"
  by (simp add: mozjs_small_table_161_defs)

lemma mozjs_small_table_162_follows: "contiguous_to 23310 mozjs_small_table_162 23451"
  by (simp add: mozjs_small_table_162_defs)

lemma mozjs_small_table_163_follows: "contiguous_to 23451 mozjs_small_table_163 23596"
  by (simp add: mozjs_small_table_163_defs)

lemma mozjs_small_table_164_follows: "contiguous_to 23596 mozjs_small_table_164 23745"
  by (simp add: mozjs_small_table_164_defs)

lemma mozjs_small_table_165_follows: "contiguous_to 23745 mozjs_small_table_165 23839"
  by (simp add: mozjs_small_table_165_defs)

lemma mozjs_small_table_166_follows: "contiguous_to 23839 mozjs_small_table_166 24021"
  by (simp add: mozjs_small_table_166_defs)

lemma mozjs_small_table_167_follows: "contiguous_to 24021 mozjs_small_table_167 24163"
  by (simp add: mozjs_small_table_167_defs)

lemma mozjs_small_table_168_follows: "contiguous_to 24163 mozjs_small_table_168 24261"
  by (simp add: mozjs_small_table_168_defs)

lemma mozjs_small_table_169_follows: "contiguous_to 24261 mozjs_small_table_169 24399"
  by (simp add: mozjs_small_table_169_defs)

lemma mozjs_small_table_170_follows: "contiguous_to 24399 mozjs_small_table_170 24509"
  by (simp add: mozjs_small_table_170_defs)

lemma mozjs_small_table_171_follows: "contiguous_to 24509 mozjs_small_table_171 24639"
  by (simp add: mozjs_small_table_171_defs)

lemma mozjs_small_table_172_follows: "contiguous_to 24639 mozjs_small_table_172 24775"
  by (simp add: mozjs_small_table_172_defs)

lemma mozjs_small_table_173_follows: "contiguous_to 24775 mozjs_small_table_173 24917"
  by (simp add: mozjs_small_table_173_defs)

lemma mozjs_small_table_174_follows: "contiguous_to 24917 mozjs_small_table_174 25086"
  by (simp add: mozjs_small_table_174_defs)

lemma mozjs_small_table_175_follows: "contiguous_to 25086 mozjs_small_table_175 25263"
  by (simp add: mozjs_small_table_175_defs)

lemma mozjs_small_table_176_follows: "contiguous_to 25263 mozjs_small_table_176 25438"
  by (simp add: mozjs_small_table_176_defs)

lemma mozjs_small_table_177_follows: "contiguous_to 25438 mozjs_small_table_177 25576"
  by (simp add: mozjs_small_table_177_defs)

lemma mozjs_small_table_178_follows: "contiguous_to 25576 mozjs_small_table_178 25717"
  by (simp add: mozjs_small_table_178_defs)

lemma mozjs_small_table_179_follows: "contiguous_to 25717 mozjs_small_table_179 25847"
  by (simp add: mozjs_small_table_179_defs)

lemma mozjs_small_table_180_follows: "contiguous_to 25847 mozjs_small_table_180 25973"
  by (simp add: mozjs_small_table_180_defs)

lemma mozjs_small_table_181_follows: "contiguous_to 25973 mozjs_small_table_181 26099"
  by (simp add: mozjs_small_table_181_defs)

lemma mozjs_small_table_182_follows: "contiguous_to 26099 mozjs_small_table_182 26277"
  by (simp add: mozjs_small_table_182_defs)

lemma mozjs_small_table_183_follows: "contiguous_to 26277 mozjs_small_table_183 26418"
  by (simp add: mozjs_small_table_183_defs)

lemma mozjs_small_table_184_follows: "contiguous_to 26418 mozjs_small_table_184 26559"
  by (simp add: mozjs_small_table_184_defs)

lemma mozjs_small_table_185_follows: "contiguous_to 26559 mozjs_small_table_185 26700"
  by (simp add: mozjs_small_table_185_defs)

lemma mozjs_small_table_186_follows: "contiguous_to 26700 mozjs_small_table_186 26838"
  by (simp add: mozjs_small_table_186_defs)

lemma mozjs_small_table_187_follows: "contiguous_to 26838 mozjs_small_table_187 26981"
  by (simp add: mozjs_small_table_187_defs)

lemma mozjs_small_table_188_follows: "contiguous_to 26981 mozjs_small_table_188 27126"
  by (simp add: mozjs_small_table_188_defs)

lemma mozjs_small_table_189_follows: "contiguous_to 27126 mozjs_small_table_189 27267"
  by (simp add: mozjs_small_table_189_defs)

lemma mozjs_small_table_190_follows: "contiguous_to 27267 mozjs_small_table_190 27405"
  by (simp add: mozjs_small_table_190_defs)

lemma mozjs_small_table_191_follows: "contiguous_to 27405 mozjs_small_table_191 27550"
  by (simp add: mozjs_small_table_191_defs)

lemma mozjs_small_table_192_follows: "contiguous_to 27550 mozjs_small_table_192 27692"
  by (simp add: mozjs_small_table_192_defs)

lemma mozjs_small_table_193_follows: "contiguous_to 27692 mozjs_small_table_193 27832"
  by (simp add: mozjs_small_table_193_defs)

lemma mozjs_small_table_194_follows: "contiguous_to 27832 mozjs_small_table_194 27981"
  by (simp add: mozjs_small_table_194_defs)

lemma mozjs_small_table_195_follows: "contiguous_to 27981 mozjs_small_table_195 28123"
  by (simp add: mozjs_small_table_195_defs)

lemma mozjs_small_table_196_follows: "contiguous_to 28123 mozjs_small_table_196 28311"
  by (simp add: mozjs_small_table_196_defs)

lemma mozjs_small_table_197_follows: "contiguous_to 28311 mozjs_small_table_197 28455"
  by (simp add: mozjs_small_table_197_defs)

lemma mozjs_small_table_198_follows: "contiguous_to 28455 mozjs_small_table_198 28599"
  by (simp add: mozjs_small_table_198_defs)

lemma mozjs_small_table_199_follows: "contiguous_to 28599 mozjs_small_table_199 28739"
  by (simp add: mozjs_small_table_199_defs)

lemma mozjs_small_table_200_follows: "contiguous_to 28739 mozjs_small_table_200 28927"
  by (simp add: mozjs_small_table_200_defs)

lemma mozjs_small_table_201_follows: "contiguous_to 28927 mozjs_small_table_201 29073"
  by (simp add: mozjs_small_table_201_defs)

lemma mozjs_small_table_202_follows: "contiguous_to 29073 mozjs_small_table_202 29253"
  by (simp add: mozjs_small_table_202_defs)

lemma mozjs_small_table_203_follows: "contiguous_to 29253 mozjs_small_table_203 29439"
  by (simp add: mozjs_small_table_203_defs)

lemma mozjs_small_table_204_follows: "contiguous_to 29439 mozjs_small_table_204 29625"
  by (simp add: mozjs_small_table_204_defs)

lemma mozjs_small_table_205_follows: "contiguous_to 29625 mozjs_small_table_205 29811"
  by (simp add: mozjs_small_table_205_defs)

lemma mozjs_small_table_206_follows: "contiguous_to 29811 mozjs_small_table_206 29997"
  by (simp add: mozjs_small_table_206_defs)

lemma mozjs_small_table_207_follows: "contiguous_to 29997 mozjs_small_table_207 30183"
  by (simp add: mozjs_small_table_207_defs)

lemma mozjs_small_table_208_follows: "contiguous_to 30183 mozjs_small_table_208 30369"
  by (simp add: mozjs_small_table_208_defs)

lemma mozjs_small_table_209_follows: "contiguous_to 30369 mozjs_small_table_209 30555"
  by (simp add: mozjs_small_table_209_defs)

lemma mozjs_small_table_210_follows: "contiguous_to 30555 mozjs_small_table_210 30737"
  by (simp add: mozjs_small_table_210_defs)

lemma mozjs_small_table_211_follows: "contiguous_to 30737 mozjs_small_table_211 30919"
  by (simp add: mozjs_small_table_211_defs)

lemma mozjs_small_table_212_follows: "contiguous_to 30919 mozjs_small_table_212 31105"
  by (simp add: mozjs_small_table_212_defs)

lemma mozjs_small_table_213_follows: "contiguous_to 31105 mozjs_small_table_213 31245"
  by (simp add: mozjs_small_table_213_defs)

lemma mozjs_small_table_214_follows: "contiguous_to 31245 mozjs_small_table_214 31398"
  by (simp add: mozjs_small_table_214_defs)

lemma mozjs_small_table_215_follows: "contiguous_to 31398 mozjs_small_table_215 31578"
  by (simp add: mozjs_small_table_215_defs)

lemma mozjs_small_table_216_follows: "contiguous_to 31578 mozjs_small_table_216 31764"
  by (simp add: mozjs_small_table_216_defs)

lemma mozjs_small_table_217_follows: "contiguous_to 31764 mozjs_small_table_217 31950"
  by (simp add: mozjs_small_table_217_defs)

lemma mozjs_small_table_218_follows: "contiguous_to 31950 mozjs_small_table_218 32136"
  by (simp add: mozjs_small_table_218_defs)

lemma mozjs_small_table_219_follows: "contiguous_to 32136 mozjs_small_table_219 32316"
  by (simp add: mozjs_small_table_219_defs)

lemma mozjs_small_table_220_follows: "contiguous_to 32316 mozjs_small_table_220 32496"
  by (simp add: mozjs_small_table_220_defs)

lemma mozjs_small_table_221_follows: "contiguous_to 32496 mozjs_small_table_221 32676"
  by (simp add: mozjs_small_table_221_defs)

lemma mozjs_small_table_222_follows: "contiguous_to 32676 mozjs_small_table_222 32856"
  by (simp add: mozjs_small_table_222_defs)

lemma mozjs_small_table_223_follows: "contiguous_to 32856 mozjs_small_table_223 33042"
  by (simp add: mozjs_small_table_223_defs)

lemma mozjs_small_table_224_follows: "contiguous_to 33042 mozjs_small_table_224 33228"
  by (simp add: mozjs_small_table_224_defs)

lemma mozjs_small_table_225_follows: "contiguous_to 33228 mozjs_small_table_225 33414"
  by (simp add: mozjs_small_table_225_defs)

lemma mozjs_small_table_226_follows: "contiguous_to 33414 mozjs_small_table_226 33600"
  by (simp add: mozjs_small_table_226_defs)

lemma mozjs_small_table_227_follows: "contiguous_to 33600 mozjs_small_table_227 33786"
  by (simp add: mozjs_small_table_227_defs)

lemma mozjs_small_table_228_follows: "contiguous_to 33786 mozjs_small_table_228 33972"
  by (simp add: mozjs_small_table_228_defs)

lemma mozjs_small_table_229_follows: "contiguous_to 33972 mozjs_small_table_229 34158"
  by (simp add: mozjs_small_table_229_defs)

lemma mozjs_small_table_230_follows: "contiguous_to 34158 mozjs_small_table_230 34344"
  by (simp add: mozjs_small_table_230_defs)

lemma mozjs_small_table_231_follows: "contiguous_to 34344 mozjs_small_table_231 34510"
  by (simp add: mozjs_small_table_231_defs)

lemma mozjs_small_table_232_follows: "contiguous_to 34510 mozjs_small_table_232 34652"
  by (simp add: mozjs_small_table_232_defs)

lemma mozjs_small_table_233_follows: "contiguous_to 34652 mozjs_small_table_233 34782"
  by (simp add: mozjs_small_table_233_defs)

lemma mozjs_small_table_234_follows: "contiguous_to 34782 mozjs_small_table_234 34954"
  by (simp add: mozjs_small_table_234_defs)

lemma mozjs_small_table_235_follows: "contiguous_to 34954 mozjs_small_table_235 35130"
  by (simp add: mozjs_small_table_235_defs)

lemma mozjs_small_table_236_follows: "contiguous_to 35130 mozjs_small_table_236 35306"
  by (simp add: mozjs_small_table_236_defs)

lemma mozjs_small_table_237_follows: "contiguous_to 35306 mozjs_small_table_237 35482"
  by (simp add: mozjs_small_table_237_defs)

lemma mozjs_small_table_238_follows: "contiguous_to 35482 mozjs_small_table_238 35616"
  by (simp add: mozjs_small_table_238_defs)

lemma mozjs_small_table_239_follows: "contiguous_to 35616 mozjs_small_table_239 35794"
  by (simp add: mozjs_small_table_239_defs)

lemma mozjs_small_table_240_follows: "contiguous_to 35794 mozjs_small_table_240 35970"
  by (simp add: mozjs_small_table_240_defs)

lemma mozjs_small_table_241_follows: "contiguous_to 35970 mozjs_small_table_241 36104"
  by (simp add: mozjs_small_table_241_defs)

lemma mozjs_small_table_242_follows: "contiguous_to 36104 mozjs_small_table_242 36280"
  by (simp add: mozjs_small_table_242_defs)

lemma mozjs_small_table_243_follows: "contiguous_to 36280 mozjs_small_table_243 36456"
  by (simp add: mozjs_small_table_243_defs)

lemma mozjs_small_table_244_follows: "contiguous_to 36456 mozjs_small_table_244 36632"
  by (simp add: mozjs_small_table_244_defs)

lemma mozjs_small_table_245_follows: "contiguous_to 36632 mozjs_small_table_245 36808"
  by (simp add: mozjs_small_table_245_defs)

lemma mozjs_small_table_246_follows: "contiguous_to 36808 mozjs_small_table_246 36934"
  by (simp add: mozjs_small_table_246_defs)

lemma mozjs_small_table_247_follows: "contiguous_to 36934 mozjs_small_table_247 37096"
  by (simp add: mozjs_small_table_247_defs)

lemma mozjs_small_table_248_follows: "contiguous_to 37096 mozjs_small_table_248 37236"
  by (simp add: mozjs_small_table_248_defs)

lemma mozjs_small_table_249_follows: "contiguous_to 37236 mozjs_small_table_249 37390"
  by (simp add: mozjs_small_table_249_defs)

lemma mozjs_small_table_250_follows: "contiguous_to 37390 mozjs_small_table_250 37510"
  by (simp add: mozjs_small_table_250_defs)

lemma mozjs_small_table_251_follows: "contiguous_to 37510 mozjs_small_table_251 37666"
  by (simp add: mozjs_small_table_251_defs)

lemma mozjs_small_table_252_follows: "contiguous_to 37666 mozjs_small_table_252 37842"
  by (simp add: mozjs_small_table_252_defs)

lemma mozjs_small_table_253_follows: "contiguous_to 37842 mozjs_small_table_253 38018"
  by (simp add: mozjs_small_table_253_defs)

lemma mozjs_small_table_254_follows: "contiguous_to 38018 mozjs_small_table_254 38194"
  by (simp add: mozjs_small_table_254_defs)

lemma mozjs_small_table_255_follows: "contiguous_to 38194 mozjs_small_table_255 38350"
  by (simp add: mozjs_small_table_255_defs)

lemma mozjs_small_table_256_follows: "contiguous_to 38350 mozjs_small_table_256 38526"
  by (simp add: mozjs_small_table_256_defs)

lemma mozjs_small_table_257_follows: "contiguous_to 38526 mozjs_small_table_257 38702"
  by (simp add: mozjs_small_table_257_defs)

lemma mozjs_small_table_258_follows: "contiguous_to 38702 mozjs_small_table_258 38858"
  by (simp add: mozjs_small_table_258_defs)

lemma mozjs_small_table_259_follows: "contiguous_to 38858 mozjs_small_table_259 38996"
  by (simp add: mozjs_small_table_259_defs)

lemma mozjs_small_table_260_follows: "contiguous_to 38996 mozjs_small_table_260 39142"
  by (simp add: mozjs_small_table_260_defs)

lemma mozjs_small_table_261_follows: "contiguous_to 39142 mozjs_small_table_261 39296"
  by (simp add: mozjs_small_table_261_defs)

lemma mozjs_small_table_262_follows: "contiguous_to 39296 mozjs_small_table_262 39438"
  by (simp add: mozjs_small_table_262_defs)

lemma mozjs_small_table_263_follows: "contiguous_to 39438 mozjs_small_table_263 39568"
  by (simp add: mozjs_small_table_263_defs)

lemma mozjs_small_table_264_follows: "contiguous_to 39568 mozjs_small_table_264 39740"
  by (simp add: mozjs_small_table_264_defs)

lemma mozjs_small_table_265_follows: "contiguous_to 39740 mozjs_small_table_265 39916"
  by (simp add: mozjs_small_table_265_defs)

lemma mozjs_small_table_266_follows: "contiguous_to 39916 mozjs_small_table_266 40062"
  by (simp add: mozjs_small_table_266_defs)

lemma mozjs_small_table_267_follows: "contiguous_to 40062 mozjs_small_table_267 40200"
  by (simp add: mozjs_small_table_267_defs)

lemma mozjs_small_table_268_follows: "contiguous_to 40200 mozjs_small_table_268 40362"
  by (simp add: mozjs_small_table_268_defs)

lemma mozjs_small_table_269_follows: "contiguous_to 40362 mozjs_small_table_269 40496"
  by (simp add: mozjs_small_table_269_defs)

lemma mozjs_small_table_270_follows: "contiguous_to 40496 mozjs_small_table_270 40648"
  by (simp add: mozjs_small_table_270_defs)

lemma mozjs_small_table_271_follows: "contiguous_to 40648 mozjs_small_table_271 40815"
  by (simp add: mozjs_small_table_271_defs)

lemma mozjs_small_table_272_follows: "contiguous_to 40815 mozjs_small_table_272 40991"
  by (simp add: mozjs_small_table_272_defs)

lemma mozjs_small_table_273_follows: "contiguous_to 40991 mozjs_small_table_273 41157"
  by (simp add: mozjs_small_table_273_defs)

lemma mozjs_small_table_274_follows: "contiguous_to 41157 mozjs_small_table_274 41331"
  by (simp add: mozjs_small_table_274_defs)

lemma mozjs_small_table_275_follows: "contiguous_to 41331 mozjs_small_table_275 41505"
  by (simp add: mozjs_small_table_275_defs)

lemma mozjs_small_table_276_follows: "contiguous_to 41505 mozjs_small_table_276 41679"
  by (simp add: mozjs_small_table_276_defs)

lemma mozjs_small_table_277_follows: "contiguous_to 41679 mozjs_small_table_277 41847"
  by (simp add: mozjs_small_table_277_defs)

lemma mozjs_small_table_278_follows: "contiguous_to 41847 mozjs_small_table_278 41990"
  by (simp add: mozjs_small_table_278_defs)

lemma mozjs_small_table_279_follows: "contiguous_to 41990 mozjs_small_table_279 42192"
  by (simp add: mozjs_small_table_279_defs)

lemma mozjs_small_table_280_follows: "contiguous_to 42192 mozjs_small_table_280 42336"
  by (simp add: mozjs_small_table_280_defs)

lemma mozjs_small_table_281_follows: "contiguous_to 42336 mozjs_small_table_281 42538"
  by (simp add: mozjs_small_table_281_defs)

lemma mozjs_small_table_282_follows: "contiguous_to 42538 mozjs_small_table_282 42714"
  by (simp add: mozjs_small_table_282_defs)

lemma mozjs_small_table_283_follows: "contiguous_to 42714 mozjs_small_table_283 42887"
  by (simp add: mozjs_small_table_283_defs)

lemma mozjs_small_table_284_follows: "contiguous_to 42887 mozjs_small_table_284 43062"
  by (simp add: mozjs_small_table_284_defs)

lemma mozjs_small_table_285_follows: "contiguous_to 43062 mozjs_small_table_285 43235"
  by (simp add: mozjs_small_table_285_defs)

lemma mozjs_small_table_286_follows: "contiguous_to 43235 mozjs_small_table_286 43405"
  by (simp add: mozjs_small_table_286_defs)

lemma mozjs_small_table_287_follows: "contiguous_to 43405 mozjs_small_table_287 43563"
  by (simp add: mozjs_small_table_287_defs)

lemma mozjs_small_table_288_follows: "contiguous_to 43563 mozjs_small_table_288 43719"
  by (simp add: mozjs_small_table_288_defs)

lemma mozjs_small_table_289_follows: "contiguous_to 43719 mozjs_small_table_289 43874"
  by (simp add: mozjs_small_table_289_defs)

lemma mozjs_small_table_290_follows: "contiguous_to 43874 mozjs_small_table_290 44030"
  by (simp add: mozjs_small_table_290_defs)

lemma mozjs_small_table_291_follows: "contiguous_to 44030 mozjs_small_table_291 44224"
  by (simp add: mozjs_small_table_291_defs)

lemma mozjs_small_table_292_follows: "contiguous_to 44224 mozjs_small_table_292 44416"
  by (simp add: mozjs_small_table_292_defs)

lemma mozjs_small_table_293_follows: "contiguous_to 44416 mozjs_small_table_293 44582"
  by (simp add: mozjs_small_table_293_defs)

lemma mozjs_small_table_294_follows: "contiguous_to 44582 mozjs_small_table_294 44740"
  by (simp add: mozjs_small_table_294_defs)

lemma mozjs_small_table_295_follows: "contiguous_to 44740 mozjs_small_table_295 44927"
  by (simp add: mozjs_small_table_295_defs)

lemma mozjs_small_table_296_follows: "contiguous_to 44927 mozjs_small_table_296 45089"
  by (simp add: mozjs_small_table_296_defs)

lemma mozjs_small_table_297_follows: "contiguous_to 45089 mozjs_small_table_297 45237"
  by (simp add: mozjs_small_table_297_defs)

lemma mozjs_small_table_298_follows: "contiguous_to 45237 mozjs_small_table_298 45379"
  by (simp add: mozjs_small_table_298_defs)

lemma mozjs_small_table_299_follows: "contiguous_to 45379 mozjs_small_table_299 45541"
  by (simp add: mozjs_small_table_299_defs)

lemma mozjs_small_table_300_follows: "contiguous_to 45541 mozjs_small_table_300 45709"
  by (simp add: mozjs_small_table_300_defs)

lemma mozjs_small_table_301_follows: "contiguous_to 45709 mozjs_small_table_301 45877"
  by (simp add: mozjs_small_table_301_defs)

lemma mozjs_small_table_302_follows: "contiguous_to 45877 mozjs_small_table_302 46056"
  by (simp add: mozjs_small_table_302_defs)

lemma mozjs_small_table_303_follows: "contiguous_to 46056 mozjs_small_table_303 46241"
  by (simp add: mozjs_small_table_303_defs)

lemma mozjs_small_table_304_follows: "contiguous_to 46241 mozjs_small_table_304 46406"
  by (simp add: mozjs_small_table_304_defs)

lemma mozjs_small_table_305_follows: "contiguous_to 46406 mozjs_small_table_305 46586"
  by (simp add: mozjs_small_table_305_defs)

lemma mozjs_small_table_306_follows: "contiguous_to 46586 mozjs_small_table_306 46756"
  by (simp add: mozjs_small_table_306_defs)

lemma mozjs_small_table_307_follows: "contiguous_to 46756 mozjs_small_table_307 46942"
  by (simp add: mozjs_small_table_307_defs)

lemma mozjs_small_table_308_follows: "contiguous_to 46942 mozjs_small_table_308 47122"
  by (simp add: mozjs_small_table_308_defs)

lemma mozjs_small_table_309_follows: "contiguous_to 47122 mozjs_small_table_309 47302"
  by (simp add: mozjs_small_table_309_defs)

lemma mozjs_small_table_310_follows: "contiguous_to 47302 mozjs_small_table_310 47482"
  by (simp add: mozjs_small_table_310_defs)

lemma mozjs_small_table_311_follows: "contiguous_to 47482 mozjs_small_table_311 47656"
  by (simp add: mozjs_small_table_311_defs)

lemma mozjs_small_table_312_follows: "contiguous_to 47656 mozjs_small_table_312 47821"
  by (simp add: mozjs_small_table_312_defs)

lemma mozjs_small_table_313_follows: "contiguous_to 47821 mozjs_small_table_313 47986"
  by (simp add: mozjs_small_table_313_defs)

lemma mozjs_small_table_314_follows: "contiguous_to 47986 mozjs_small_table_314 48151"
  by (simp add: mozjs_small_table_314_defs)

lemma mozjs_small_table_315_follows: "contiguous_to 48151 mozjs_small_table_315 48316"
  by (simp add: mozjs_small_table_315_defs)

lemma mozjs_small_table_316_follows: "contiguous_to 48316 mozjs_small_table_316 48515"
  by (simp add: mozjs_small_table_316_defs)

lemma mozjs_small_table_317_follows: "contiguous_to 48515 mozjs_small_table_317 48707"
  by (simp add: mozjs_small_table_317_defs)

lemma mozjs_small_table_318_follows: "contiguous_to 48707 mozjs_small_table_318 48902"
  by (simp add: mozjs_small_table_318_defs)

lemma mozjs_small_table_319_follows: "contiguous_to 48902 mozjs_small_table_319 49086"
  by (simp add: mozjs_small_table_319_defs)

lemma mozjs_small_table_320_follows: "contiguous_to 49086 mozjs_small_table_320 49292"
  by (simp add: mozjs_small_table_320_defs)

lemma mozjs_small_table_321_follows: "contiguous_to 49292 mozjs_small_table_321 49500"
  by (simp add: mozjs_small_table_321_defs)

lemma mozjs_small_table_322_follows: "contiguous_to 49500 mozjs_small_table_322 49710"
  by (simp add: mozjs_small_table_322_defs)

lemma mozjs_small_table_323_follows: "contiguous_to 49710 mozjs_small_table_323 49918"
  by (simp add: mozjs_small_table_323_defs)

lemma mozjs_small_table_324_follows: "contiguous_to 49918 mozjs_small_table_324 50109"
  by (simp add: mozjs_small_table_324_defs)

lemma mozjs_small_table_325_follows: "contiguous_to 50109 mozjs_small_table_325 50301"
  by (simp add: mozjs_small_table_325_defs)

lemma mozjs_small_table_326_follows: "contiguous_to 50301 mozjs_small_table_326 50487"
  by (simp add: mozjs_small_table_326_defs)

lemma mozjs_small_table_327_follows: "contiguous_to 50487 mozjs_small_table_327 50678"
  by (simp add: mozjs_small_table_327_defs)

lemma mozjs_small_table_328_follows: "contiguous_to 50678 mozjs_small_table_328 50853"
  by (simp add: mozjs_small_table_328_defs)

lemma mozjs_small_table_329_follows: "contiguous_to 50853 mozjs_small_table_329 51035"
  by (simp add: mozjs_small_table_329_defs)

lemma mozjs_small_table_330_follows: "contiguous_to 51035 mozjs_small_table_330 51221"
  by (simp add: mozjs_small_table_330_defs)

lemma mozjs_small_table_331_follows: "contiguous_to 51221 mozjs_small_table_331 51425"
  by (simp add: mozjs_small_table_331_defs)

lemma mozjs_small_table_332_follows: "contiguous_to 51425 mozjs_small_table_332 51619"
  by (simp add: mozjs_small_table_332_defs)

lemma mozjs_small_table_333_follows: "contiguous_to 51619 mozjs_small_table_333 51799"
  by (simp add: mozjs_small_table_333_defs)

lemma mozjs_small_table_334_follows: "contiguous_to 51799 mozjs_small_table_334 51993"
  by (simp add: mozjs_small_table_334_defs)

lemma mozjs_small_table_335_follows: "contiguous_to 51993 mozjs_small_table_335 52193"
  by (simp add: mozjs_small_table_335_defs)

lemma mozjs_small_table_336_follows: "contiguous_to 52193 mozjs_small_table_336 52402"
  by (simp add: mozjs_small_table_336_defs)

lemma mozjs_small_table_337_follows: "contiguous_to 52402 mozjs_small_table_337 52598"
  by (simp add: mozjs_small_table_337_defs)

lemma mozjs_small_table_338_follows: "contiguous_to 52598 mozjs_small_table_338 52800"
  by (simp add: mozjs_small_table_338_defs)

lemma mozjs_small_table_339_follows: "contiguous_to 52800 mozjs_small_table_339 53009"
  by (simp add: mozjs_small_table_339_defs)

lemma mozjs_small_table_340_follows: "contiguous_to 53009 mozjs_small_table_340 53206"
  by (simp add: mozjs_small_table_340_defs)

lemma mozjs_small_table_341_follows: "contiguous_to 53206 mozjs_small_table_341 53408"
  by (simp add: mozjs_small_table_341_defs)

lemma mozjs_small_table_342_follows: "contiguous_to 53408 mozjs_small_table_342 53612"
  by (simp add: mozjs_small_table_342_defs)

lemma mozjs_small_table_343_follows: "contiguous_to 53612 mozjs_small_table_343 53822"
  by (simp add: mozjs_small_table_343_defs)

lemma mozjs_small_table_344_follows: "contiguous_to 53822 mozjs_small_table_344 54022"
  by (simp add: mozjs_small_table_344_defs)

lemma mozjs_small_table_345_follows: "contiguous_to 54022 mozjs_small_table_345 54220"
  by (simp add: mozjs_small_table_345_defs)

lemma mozjs_small_table_346_follows: "contiguous_to 54220 mozjs_small_table_346 54418"
  by (simp add: mozjs_small_table_346_defs)

lemma mozjs_small_table_347_follows: "contiguous_to 54418 mozjs_small_table_347 54610"
  by (simp add: mozjs_small_table_347_defs)

lemma mozjs_small_table_348_follows: "contiguous_to 54610 mozjs_small_table_348 54813"
  by (simp add: mozjs_small_table_348_defs)

lemma mozjs_small_table_349_follows: "contiguous_to 54813 mozjs_small_table_349 55018"
  by (simp add: mozjs_small_table_349_defs)

lemma mozjs_small_table_350_follows: "contiguous_to 55018 mozjs_small_table_350 55221"
  by (simp add: mozjs_small_table_350_defs)

lemma mozjs_small_table_351_follows: "contiguous_to 55221 mozjs_small_table_351 55426"
  by (simp add: mozjs_small_table_351_defs)

lemma mozjs_small_table_352_follows: "contiguous_to 55426 mozjs_small_table_352 55631"
  by (simp add: mozjs_small_table_352_defs)

lemma mozjs_small_table_353_follows: "contiguous_to 55631 mozjs_small_table_353 55827"
  by (simp add: mozjs_small_table_353_defs)

lemma mozjs_small_table_354_follows: "contiguous_to 55827 mozjs_small_table_354 56023"
  by (simp add: mozjs_small_table_354_defs)

lemma mozjs_small_table_355_follows: "contiguous_to 56023 mozjs_small_table_355 56226"
  by (simp add: mozjs_small_table_355_defs)

lemma mozjs_small_table_356_follows: "contiguous_to 56226 mozjs_small_table_356 56429"
  by (simp add: mozjs_small_table_356_defs)

lemma mozjs_small_table_357_follows: "contiguous_to 56429 mozjs_small_table_357 56630"
  by (simp add: mozjs_small_table_357_defs)

lemma mozjs_small_table_358_follows: "contiguous_to 56630 mozjs_small_table_358 56833"
  by (simp add: mozjs_small_table_358_defs)

lemma mozjs_small_table_359_follows: "contiguous_to 56833 mozjs_small_table_359 57029"
  by (simp add: mozjs_small_table_359_defs)

lemma mozjs_small_table_360_follows: "contiguous_to 57029 mozjs_small_table_360 57230"
  by (simp add: mozjs_small_table_360_defs)

lemma mozjs_small_table_361_follows: "contiguous_to 57230 mozjs_small_table_361 57430"
  by (simp add: mozjs_small_table_361_defs)

lemma mozjs_small_table_362_follows: "contiguous_to 57430 mozjs_small_table_362 57624"
  by (simp add: mozjs_small_table_362_defs)

lemma mozjs_small_table_363_follows: "contiguous_to 57624 mozjs_small_table_363 57820"
  by (simp add: mozjs_small_table_363_defs)

lemma mozjs_small_table_364_follows: "contiguous_to 57820 mozjs_small_table_364 58014"
  by (simp add: mozjs_small_table_364_defs)

lemma mozjs_small_table_365_follows: "contiguous_to 58014 mozjs_small_table_365 58210"
  by (simp add: mozjs_small_table_365_defs)

lemma mozjs_small_table_366_follows: "contiguous_to 58210 mozjs_small_table_366 58388"
  by (simp add: mozjs_small_table_366_defs)

lemmas mozjs_runs_follow =
  mozjs_small_table_0_follows mozjs_small_table_1_follows mozjs_small_table_2_follows
    mozjs_small_table_3_follows mozjs_small_table_4_follows mozjs_small_table_5_follows
    mozjs_small_table_6_follows mozjs_small_table_7_follows mozjs_small_table_8_follows
    mozjs_small_table_9_follows mozjs_small_table_10_follows mozjs_small_table_11_follows
    mozjs_small_table_12_follows mozjs_small_table_13_follows mozjs_small_table_14_follows
    mozjs_small_table_15_follows mozjs_small_table_16_follows mozjs_small_table_17_follows
    mozjs_small_table_18_follows mozjs_small_table_19_follows mozjs_small_table_20_follows
    mozjs_small_table_21_follows mozjs_small_table_22_follows mozjs_small_table_23_follows
    mozjs_small_table_24_follows mozjs_small_table_25_follows mozjs_small_table_26_follows
    mozjs_small_table_27_follows mozjs_small_table_28_follows mozjs_small_table_29_follows
    mozjs_small_table_30_follows mozjs_small_table_31_follows mozjs_small_table_32_follows
    mozjs_small_table_33_follows mozjs_small_table_34_follows mozjs_small_table_35_follows
    mozjs_small_table_36_follows mozjs_small_table_37_follows mozjs_small_table_38_follows
    mozjs_small_table_39_follows mozjs_small_table_40_follows mozjs_small_table_41_follows
    mozjs_small_table_42_follows mozjs_small_table_43_follows mozjs_small_table_44_follows
    mozjs_small_table_45_follows mozjs_small_table_46_follows mozjs_small_table_47_follows
    mozjs_small_table_48_follows mozjs_small_table_49_follows mozjs_small_table_50_follows
    mozjs_small_table_51_follows mozjs_small_table_52_follows mozjs_small_table_53_follows
    mozjs_small_table_54_follows mozjs_small_table_55_follows mozjs_small_table_56_follows
    mozjs_small_table_57_follows mozjs_small_table_58_follows mozjs_small_table_59_follows
    mozjs_small_table_60_follows mozjs_small_table_61_follows mozjs_small_table_62_follows
    mozjs_small_table_63_follows mozjs_small_table_64_follows mozjs_small_table_65_follows
    mozjs_small_table_66_follows mozjs_small_table_67_follows mozjs_small_table_68_follows
    mozjs_small_table_69_follows mozjs_small_table_70_follows mozjs_small_table_71_follows
    mozjs_small_table_72_follows mozjs_small_table_73_follows mozjs_small_table_74_follows
    mozjs_small_table_75_follows mozjs_small_table_76_follows mozjs_small_table_77_follows
    mozjs_small_table_78_follows mozjs_small_table_79_follows mozjs_small_table_80_follows
    mozjs_small_table_81_follows mozjs_small_table_82_follows mozjs_small_table_83_follows
    mozjs_small_table_84_follows mozjs_small_table_85_follows mozjs_small_table_86_follows
    mozjs_small_table_87_follows mozjs_small_table_88_follows mozjs_small_table_89_follows
    mozjs_small_table_90_follows mozjs_small_table_91_follows mozjs_small_table_92_follows
    mozjs_small_table_93_follows mozjs_small_table_94_follows mozjs_small_table_95_follows
    mozjs_small_table_96_follows mozjs_small_table_97_follows mozjs_small_table_98_follows
    mozjs_small_table_99_follows mozjs_small_table_100_follows mozjs_small_table_101_follows
    mozjs_small_table_102_follows mozjs_small_table_103_follows mozjs_small_table_104_follows
    mozjs_small_table_105_follows mozjs_small_table_106_follows mozjs_small_table_107_follows
    mozjs_small_table_108_follows mozjs_small_table_109_follows mozjs_small_table_110_follows
    mozjs_small_table_111_follows mozjs_small_table_112_follows mozjs_small_table_113_follows
    mozjs_small_table_114_follows mozjs_small_table_115_follows mozjs_small_table_116_follows
    mozjs_small_table_117_follows mozjs_small_table_118_follows mozjs_small_table_119_follows
    mozjs_small_table_120_follows mozjs_small_table_121_follows mozjs_small_table_122_follows
    mozjs_small_table_123_follows mozjs_small_table_124_follows mozjs_small_table_125_follows
    mozjs_small_table_126_follows mozjs_small_table_127_follows mozjs_small_table_128_follows
    mozjs_small_table_129_follows mozjs_small_table_130_follows mozjs_small_table_131_follows
    mozjs_small_table_132_follows mozjs_small_table_133_follows mozjs_small_table_134_follows
    mozjs_small_table_135_follows mozjs_small_table_136_follows mozjs_small_table_137_follows
    mozjs_small_table_138_follows mozjs_small_table_139_follows mozjs_small_table_140_follows
    mozjs_small_table_141_follows mozjs_small_table_142_follows mozjs_small_table_143_follows
    mozjs_small_table_144_follows mozjs_small_table_145_follows mozjs_small_table_146_follows
    mozjs_small_table_147_follows mozjs_small_table_148_follows mozjs_small_table_149_follows
    mozjs_small_table_150_follows mozjs_small_table_151_follows mozjs_small_table_152_follows
    mozjs_small_table_153_follows mozjs_small_table_154_follows mozjs_small_table_155_follows
    mozjs_small_table_156_follows mozjs_small_table_157_follows mozjs_small_table_158_follows
    mozjs_small_table_159_follows mozjs_small_table_160_follows mozjs_small_table_161_follows
    mozjs_small_table_162_follows mozjs_small_table_163_follows mozjs_small_table_164_follows
    mozjs_small_table_165_follows mozjs_small_table_166_follows mozjs_small_table_167_follows
    mozjs_small_table_168_follows mozjs_small_table_169_follows mozjs_small_table_170_follows
    mozjs_small_table_171_follows mozjs_small_table_172_follows mozjs_small_table_173_follows
    mozjs_small_table_174_follows mozjs_small_table_175_follows mozjs_small_table_176_follows
    mozjs_small_table_177_follows mozjs_small_table_178_follows mozjs_small_table_179_follows
    mozjs_small_table_180_follows mozjs_small_table_181_follows mozjs_small_table_182_follows
    mozjs_small_table_183_follows mozjs_small_table_184_follows mozjs_small_table_185_follows
    mozjs_small_table_186_follows mozjs_small_table_187_follows mozjs_small_table_188_follows
    mozjs_small_table_189_follows mozjs_small_table_190_follows mozjs_small_table_191_follows
    mozjs_small_table_192_follows mozjs_small_table_193_follows mozjs_small_table_194_follows
    mozjs_small_table_195_follows mozjs_small_table_196_follows mozjs_small_table_197_follows
    mozjs_small_table_198_follows mozjs_small_table_199_follows mozjs_small_table_200_follows
    mozjs_small_table_201_follows mozjs_small_table_202_follows mozjs_small_table_203_follows
    mozjs_small_table_204_follows mozjs_small_table_205_follows mozjs_small_table_206_follows
    mozjs_small_table_207_follows mozjs_small_table_208_follows mozjs_small_table_209_follows
    mozjs_small_table_210_follows mozjs_small_table_211_follows mozjs_small_table_212_follows
    mozjs_small_table_213_follows mozjs_small_table_214_follows mozjs_small_table_215_follows
    mozjs_small_table_216_follows mozjs_small_table_217_follows mozjs_small_table_218_follows
    mozjs_small_table_219_follows mozjs_small_table_220_follows mozjs_small_table_221_follows
    mozjs_small_table_222_follows mozjs_small_table_223_follows mozjs_small_table_224_follows
    mozjs_small_table_225_follows mozjs_small_table_226_follows mozjs_small_table_227_follows
    mozjs_small_table_228_follows mozjs_small_table_229_follows mozjs_small_table_230_follows
    mozjs_small_table_231_follows mozjs_small_table_232_follows mozjs_small_table_233_follows
    mozjs_small_table_234_follows mozjs_small_table_235_follows mozjs_small_table_236_follows
    mozjs_small_table_237_follows mozjs_small_table_238_follows mozjs_small_table_239_follows
    mozjs_small_table_240_follows mozjs_small_table_241_follows mozjs_small_table_242_follows
    mozjs_small_table_243_follows mozjs_small_table_244_follows mozjs_small_table_245_follows
    mozjs_small_table_246_follows mozjs_small_table_247_follows mozjs_small_table_248_follows
    mozjs_small_table_249_follows mozjs_small_table_250_follows mozjs_small_table_251_follows
    mozjs_small_table_252_follows mozjs_small_table_253_follows mozjs_small_table_254_follows
    mozjs_small_table_255_follows mozjs_small_table_256_follows mozjs_small_table_257_follows
    mozjs_small_table_258_follows mozjs_small_table_259_follows mozjs_small_table_260_follows
    mozjs_small_table_261_follows mozjs_small_table_262_follows mozjs_small_table_263_follows
    mozjs_small_table_264_follows mozjs_small_table_265_follows mozjs_small_table_266_follows
    mozjs_small_table_267_follows mozjs_small_table_268_follows mozjs_small_table_269_follows
    mozjs_small_table_270_follows mozjs_small_table_271_follows mozjs_small_table_272_follows
    mozjs_small_table_273_follows mozjs_small_table_274_follows mozjs_small_table_275_follows
    mozjs_small_table_276_follows mozjs_small_table_277_follows mozjs_small_table_278_follows
    mozjs_small_table_279_follows mozjs_small_table_280_follows mozjs_small_table_281_follows
    mozjs_small_table_282_follows mozjs_small_table_283_follows mozjs_small_table_284_follows
    mozjs_small_table_285_follows mozjs_small_table_286_follows mozjs_small_table_287_follows
    mozjs_small_table_288_follows mozjs_small_table_289_follows mozjs_small_table_290_follows
    mozjs_small_table_291_follows mozjs_small_table_292_follows mozjs_small_table_293_follows
    mozjs_small_table_294_follows mozjs_small_table_295_follows mozjs_small_table_296_follows
    mozjs_small_table_297_follows mozjs_small_table_298_follows mozjs_small_table_299_follows
    mozjs_small_table_300_follows mozjs_small_table_301_follows mozjs_small_table_302_follows
    mozjs_small_table_303_follows mozjs_small_table_304_follows mozjs_small_table_305_follows
    mozjs_small_table_306_follows mozjs_small_table_307_follows mozjs_small_table_308_follows
    mozjs_small_table_309_follows mozjs_small_table_310_follows mozjs_small_table_311_follows
    mozjs_small_table_312_follows mozjs_small_table_313_follows mozjs_small_table_314_follows
    mozjs_small_table_315_follows mozjs_small_table_316_follows mozjs_small_table_317_follows
    mozjs_small_table_318_follows mozjs_small_table_319_follows mozjs_small_table_320_follows
    mozjs_small_table_321_follows mozjs_small_table_322_follows mozjs_small_table_323_follows
    mozjs_small_table_324_follows mozjs_small_table_325_follows mozjs_small_table_326_follows
    mozjs_small_table_327_follows mozjs_small_table_328_follows mozjs_small_table_329_follows
    mozjs_small_table_330_follows mozjs_small_table_331_follows mozjs_small_table_332_follows
    mozjs_small_table_333_follows mozjs_small_table_334_follows mozjs_small_table_335_follows
    mozjs_small_table_336_follows mozjs_small_table_337_follows mozjs_small_table_338_follows
    mozjs_small_table_339_follows mozjs_small_table_340_follows mozjs_small_table_341_follows
    mozjs_small_table_342_follows mozjs_small_table_343_follows mozjs_small_table_344_follows
    mozjs_small_table_345_follows mozjs_small_table_346_follows mozjs_small_table_347_follows
    mozjs_small_table_348_follows mozjs_small_table_349_follows mozjs_small_table_350_follows
    mozjs_small_table_351_follows mozjs_small_table_352_follows mozjs_small_table_353_follows
    mozjs_small_table_354_follows mozjs_small_table_355_follows mozjs_small_table_356_follows
    mozjs_small_table_357_follows mozjs_small_table_358_follows mozjs_small_table_359_follows
    mozjs_small_table_360_follows mozjs_small_table_361_follows mozjs_small_table_362_follows
    mozjs_small_table_363_follows mozjs_small_table_364_follows mozjs_small_table_365_follows
    mozjs_small_table_366_follows

lemma mozjs_runs_contiguous: "contiguous 0 mozjs_ts_small_parse_table"
  unfolding mozjs_ts_small_parse_table_def
  by (rule contiguous_to_contiguous, (rule contiguous_to_append mozjs_runs_follow)+)

lemmas mozjs_small_table_names =
  mozjs_small_table_0_def mozjs_small_table_1_def mozjs_small_table_2_def mozjs_small_table_3_def
    mozjs_small_table_4_def mozjs_small_table_5_def mozjs_small_table_6_def
    mozjs_small_table_7_def mozjs_small_table_8_def mozjs_small_table_9_def
    mozjs_small_table_10_def mozjs_small_table_11_def mozjs_small_table_12_def
    mozjs_small_table_13_def mozjs_small_table_14_def mozjs_small_table_15_def
    mozjs_small_table_16_def mozjs_small_table_17_def mozjs_small_table_18_def
    mozjs_small_table_19_def mozjs_small_table_20_def mozjs_small_table_21_def
    mozjs_small_table_22_def mozjs_small_table_23_def mozjs_small_table_24_def
    mozjs_small_table_25_def mozjs_small_table_26_def mozjs_small_table_27_def
    mozjs_small_table_28_def mozjs_small_table_29_def mozjs_small_table_30_def
    mozjs_small_table_31_def mozjs_small_table_32_def mozjs_small_table_33_def
    mozjs_small_table_34_def mozjs_small_table_35_def mozjs_small_table_36_def
    mozjs_small_table_37_def mozjs_small_table_38_def mozjs_small_table_39_def
    mozjs_small_table_40_def mozjs_small_table_41_def mozjs_small_table_42_def
    mozjs_small_table_43_def mozjs_small_table_44_def mozjs_small_table_45_def
    mozjs_small_table_46_def mozjs_small_table_47_def mozjs_small_table_48_def
    mozjs_small_table_49_def mozjs_small_table_50_def mozjs_small_table_51_def
    mozjs_small_table_52_def mozjs_small_table_53_def mozjs_small_table_54_def
    mozjs_small_table_55_def mozjs_small_table_56_def mozjs_small_table_57_def
    mozjs_small_table_58_def mozjs_small_table_59_def mozjs_small_table_60_def
    mozjs_small_table_61_def mozjs_small_table_62_def mozjs_small_table_63_def
    mozjs_small_table_64_def mozjs_small_table_65_def mozjs_small_table_66_def
    mozjs_small_table_67_def mozjs_small_table_68_def mozjs_small_table_69_def
    mozjs_small_table_70_def mozjs_small_table_71_def mozjs_small_table_72_def
    mozjs_small_table_73_def mozjs_small_table_74_def mozjs_small_table_75_def
    mozjs_small_table_76_def mozjs_small_table_77_def mozjs_small_table_78_def
    mozjs_small_table_79_def mozjs_small_table_80_def mozjs_small_table_81_def
    mozjs_small_table_82_def mozjs_small_table_83_def mozjs_small_table_84_def
    mozjs_small_table_85_def mozjs_small_table_86_def mozjs_small_table_87_def
    mozjs_small_table_88_def mozjs_small_table_89_def mozjs_small_table_90_def
    mozjs_small_table_91_def mozjs_small_table_92_def mozjs_small_table_93_def
    mozjs_small_table_94_def mozjs_small_table_95_def mozjs_small_table_96_def
    mozjs_small_table_97_def mozjs_small_table_98_def mozjs_small_table_99_def
    mozjs_small_table_100_def mozjs_small_table_101_def mozjs_small_table_102_def
    mozjs_small_table_103_def mozjs_small_table_104_def mozjs_small_table_105_def
    mozjs_small_table_106_def mozjs_small_table_107_def mozjs_small_table_108_def
    mozjs_small_table_109_def mozjs_small_table_110_def mozjs_small_table_111_def
    mozjs_small_table_112_def mozjs_small_table_113_def mozjs_small_table_114_def
    mozjs_small_table_115_def mozjs_small_table_116_def mozjs_small_table_117_def
    mozjs_small_table_118_def mozjs_small_table_119_def mozjs_small_table_120_def
    mozjs_small_table_121_def mozjs_small_table_122_def mozjs_small_table_123_def
    mozjs_small_table_124_def mozjs_small_table_125_def mozjs_small_table_126_def
    mozjs_small_table_127_def mozjs_small_table_128_def mozjs_small_table_129_def
    mozjs_small_table_130_def mozjs_small_table_131_def mozjs_small_table_132_def
    mozjs_small_table_133_def mozjs_small_table_134_def mozjs_small_table_135_def
    mozjs_small_table_136_def mozjs_small_table_137_def mozjs_small_table_138_def
    mozjs_small_table_139_def mozjs_small_table_140_def mozjs_small_table_141_def
    mozjs_small_table_142_def mozjs_small_table_143_def mozjs_small_table_144_def
    mozjs_small_table_145_def mozjs_small_table_146_def mozjs_small_table_147_def
    mozjs_small_table_148_def mozjs_small_table_149_def mozjs_small_table_150_def
    mozjs_small_table_151_def mozjs_small_table_152_def mozjs_small_table_153_def
    mozjs_small_table_154_def mozjs_small_table_155_def mozjs_small_table_156_def
    mozjs_small_table_157_def mozjs_small_table_158_def mozjs_small_table_159_def
    mozjs_small_table_160_def mozjs_small_table_161_def mozjs_small_table_162_def
    mozjs_small_table_163_def mozjs_small_table_164_def mozjs_small_table_165_def
    mozjs_small_table_166_def mozjs_small_table_167_def mozjs_small_table_168_def
    mozjs_small_table_169_def mozjs_small_table_170_def mozjs_small_table_171_def
    mozjs_small_table_172_def mozjs_small_table_173_def mozjs_small_table_174_def
    mozjs_small_table_175_def mozjs_small_table_176_def mozjs_small_table_177_def
    mozjs_small_table_178_def mozjs_small_table_179_def mozjs_small_table_180_def
    mozjs_small_table_181_def mozjs_small_table_182_def mozjs_small_table_183_def
    mozjs_small_table_184_def mozjs_small_table_185_def mozjs_small_table_186_def
    mozjs_small_table_187_def mozjs_small_table_188_def mozjs_small_table_189_def
    mozjs_small_table_190_def mozjs_small_table_191_def mozjs_small_table_192_def
    mozjs_small_table_193_def mozjs_small_table_194_def mozjs_small_table_195_def
    mozjs_small_table_196_def mozjs_small_table_197_def mozjs_small_table_198_def
    mozjs_small_table_199_def mozjs_small_table_200_def mozjs_small_table_201_def
    mozjs_small_table_202_def mozjs_small_table_203_def mozjs_small_table_204_def
    mozjs_small_table_205_def mozjs_small_table_206_def mozjs_small_table_207_def
    mozjs_small_table_208_def mozjs_small_table_209_def mozjs_small_table_210_def
    mozjs_small_table_211_def mozjs_small_table_212_def mozjs_small_table_213_def
    mozjs_small_table_214_def mozjs_small_table_215_def mozjs_small_table_216_def
    mozjs_small_table_217_def mozjs_small_table_218_def mozjs_small_table_219_def
    mozjs_small_table_220_def mozjs_small_table_221_def mozjs_small_table_222_def
    mozjs_small_table_223_def mozjs_small_table_224_def mozjs_small_table_225_def
    mozjs_small_table_226_def mozjs_small_table_227_def mozjs_small_table_228_def
    mozjs_small_table_229_def mozjs_small_table_230_def mozjs_small_table_231_def
    mozjs_small_table_232_def mozjs_small_table_233_def mozjs_small_table_234_def
    mozjs_small_table_235_def mozjs_small_table_236_def mozjs_small_table_237_def
    mozjs_small_table_238_def mozjs_small_table_239_def mozjs_small_table_240_def
    mozjs_small_table_241_def mozjs_small_table_242_def mozjs_small_table_243_def
    mozjs_small_table_244_def mozjs_small_table_245_def mozjs_small_table_246_def
    mozjs_small_table_247_def mozjs_small_table_248_def mozjs_small_table_249_def
    mozjs_small_table_250_def mozjs_small_table_251_def mozjs_small_table_252_def
    mozjs_small_table_253_def mozjs_small_table_254_def mozjs_small_table_255_def
    mozjs_small_table_256_def mozjs_small_table_257_def mozjs_small_table_258_def
    mozjs_small_table_259_def mozjs_small_table_260_def mozjs_small_table_261_def
    mozjs_small_table_262_def mozjs_small_table_263_def mozjs_small_table_264_def
    mozjs_small_table_265_def mozjs_small_table_266_def mozjs_small_table_267_def
    mozjs_small_table_268_def mozjs_small_table_269_def mozjs_small_table_270_def
    mozjs_small_table_271_def mozjs_small_table_272_def mozjs_small_table_273_def
    mozjs_small_table_274_def mozjs_small_table_275_def mozjs_small_table_276_def
    mozjs_small_table_277_def mozjs_small_table_278_def mozjs_small_table_279_def
    mozjs_small_table_280_def mozjs_small_table_281_def mozjs_small_table_282_def
    mozjs_small_table_283_def mozjs_small_table_284_def mozjs_small_table_285_def
    mozjs_small_table_286_def mozjs_small_table_287_def mozjs_small_table_288_def
    mozjs_small_table_289_def mozjs_small_table_290_def mozjs_small_table_291_def
    mozjs_small_table_292_def mozjs_small_table_293_def mozjs_small_table_294_def
    mozjs_small_table_295_def mozjs_small_table_296_def mozjs_small_table_297_def
    mozjs_small_table_298_def mozjs_small_table_299_def mozjs_small_table_300_def
    mozjs_small_table_301_def mozjs_small_table_302_def mozjs_small_table_303_def
    mozjs_small_table_304_def mozjs_small_table_305_def mozjs_small_table_306_def
    mozjs_small_table_307_def mozjs_small_table_308_def mozjs_small_table_309_def
    mozjs_small_table_310_def mozjs_small_table_311_def mozjs_small_table_312_def
    mozjs_small_table_313_def mozjs_small_table_314_def mozjs_small_table_315_def
    mozjs_small_table_316_def mozjs_small_table_317_def mozjs_small_table_318_def
    mozjs_small_table_319_def mozjs_small_table_320_def mozjs_small_table_321_def
    mozjs_small_table_322_def mozjs_small_table_323_def mozjs_small_table_324_def
    mozjs_small_table_325_def mozjs_small_table_326_def mozjs_small_table_327_def
    mozjs_small_table_328_def mozjs_small_table_329_def mozjs_small_table_330_def
    mozjs_small_table_331_def mozjs_small_table_332_def mozjs_small_table_333_def
    mozjs_small_table_334_def mozjs_small_table_335_def mozjs_small_table_336_def
    mozjs_small_table_337_def mozjs_small_table_338_def mozjs_small_table_339_def
    mozjs_small_table_340_def mozjs_small_table_341_def mozjs_small_table_342_def
    mozjs_small_table_343_def mozjs_small_table_344_def mozjs_small_table_345_def
    mozjs_small_table_346_def mozjs_small_table_347_def mozjs_small_table_348_def
    mozjs_small_table_349_def mozjs_small_table_350_def mozjs_small_table_351_def
    mozjs_small_table_352_def mozjs_small_table_353_def mozjs_small_table_354_def
    mozjs_small_table_355_def mozjs_small_table_356_def mozjs_small_table_357_def
    mozjs_small_table_358_def mozjs_small_table_359_def mozjs_small_table_360_def
    mozjs_small_table_361_def mozjs_small_table_362_def mozjs_small_table_363_def
    mozjs_small_table_364_def mozjs_small_table_365_def mozjs_small_table_366_def

lemmas mozjs_small_map_defs =
  mozjs_small_map_0_def mozjs_small_map_1_def mozjs_small_map_2_def mozjs_small_map_3_def
    mozjs_small_map_4_def mozjs_small_map_5_def mozjs_small_map_6_def mozjs_small_map_7_def
    mozjs_small_map_8_def mozjs_small_map_9_def mozjs_small_map_10_def mozjs_small_map_11_def
    mozjs_small_map_12_def mozjs_small_map_13_def mozjs_small_map_14_def mozjs_small_map_15_def
    mozjs_small_map_16_def mozjs_small_map_17_def mozjs_small_map_18_def mozjs_small_map_19_def
    mozjs_small_map_20_def mozjs_small_map_21_def mozjs_small_map_22_def mozjs_small_map_23_def
    mozjs_small_map_24_def

lemma mozjs_table_lengths:
  "length mozjs_small_table_0 = 2"
  "length mozjs_small_table_1 = 2"
  "length mozjs_small_table_2 = 2"
  "length mozjs_small_table_3 = 2"
  "length mozjs_small_table_4 = 2"
  "length mozjs_small_table_5 = 2"
  "length mozjs_small_table_6 = 2"
  "length mozjs_small_table_7 = 2"
  "length mozjs_small_table_8 = 2"
  "length mozjs_small_table_9 = 2"
  "length mozjs_small_table_10 = 2"
  "length mozjs_small_table_11 = 2"
  "length mozjs_small_table_12 = 2"
  "length mozjs_small_table_13 = 2"
  "length mozjs_small_table_14 = 2"
  "length mozjs_small_table_15 = 2"
  "length mozjs_small_table_16 = 2"
  "length mozjs_small_table_17 = 2"
  "length mozjs_small_table_18 = 2"
  "length mozjs_small_table_19 = 2"
  "length mozjs_small_table_20 = 2"
  "length mozjs_small_table_21 = 2"
  "length mozjs_small_table_22 = 2"
  "length mozjs_small_table_23 = 2"
  "length mozjs_small_table_24 = 2"
  "length mozjs_small_table_25 = 2"
  "length mozjs_small_table_26 = 2"
  "length mozjs_small_table_27 = 2"
  "length mozjs_small_table_28 = 2"
  "length mozjs_small_table_29 = 2"
  "length mozjs_small_table_30 = 2"
  "length mozjs_small_table_31 = 2"
  "length mozjs_small_table_32 = 2"
  "length mozjs_small_table_33 = 2"
  "length mozjs_small_table_34 = 2"
  "length mozjs_small_table_35 = 2"
  "length mozjs_small_table_36 = 2"
  "length mozjs_small_table_37 = 2"
  "length mozjs_small_table_38 = 2"
  "length mozjs_small_table_39 = 2"
  "length mozjs_small_table_40 = 2"
  "length mozjs_small_table_41 = 2"
  "length mozjs_small_table_42 = 2"
  "length mozjs_small_table_43 = 2"
  "length mozjs_small_table_44 = 2"
  "length mozjs_small_table_45 = 2"
  "length mozjs_small_table_46 = 2"
  "length mozjs_small_table_47 = 2"
  "length mozjs_small_table_48 = 2"
  "length mozjs_small_table_49 = 2"
  "length mozjs_small_table_50 = 2"
  "length mozjs_small_table_51 = 2"
  "length mozjs_small_table_52 = 2"
  "length mozjs_small_table_53 = 2"
  "length mozjs_small_table_54 = 2"
  "length mozjs_small_table_55 = 2"
  "length mozjs_small_table_56 = 2"
  "length mozjs_small_table_57 = 2"
  "length mozjs_small_table_58 = 2"
  "length mozjs_small_table_59 = 2"
  "length mozjs_small_table_60 = 2"
  "length mozjs_small_table_61 = 2"
  "length mozjs_small_table_62 = 2"
  "length mozjs_small_table_63 = 2"
  "length mozjs_small_table_64 = 2"
  "length mozjs_small_table_65 = 2"
  "length mozjs_small_table_66 = 2"
  "length mozjs_small_table_67 = 2"
  "length mozjs_small_table_68 = 2"
  "length mozjs_small_table_69 = 2"
  "length mozjs_small_table_70 = 2"
  "length mozjs_small_table_71 = 2"
  "length mozjs_small_table_72 = 2"
  "length mozjs_small_table_73 = 2"
  "length mozjs_small_table_74 = 2"
  "length mozjs_small_table_75 = 2"
  "length mozjs_small_table_76 = 2"
  "length mozjs_small_table_77 = 2"
  "length mozjs_small_table_78 = 2"
  "length mozjs_small_table_79 = 2"
  "length mozjs_small_table_80 = 2"
  "length mozjs_small_table_81 = 2"
  "length mozjs_small_table_82 = 2"
  "length mozjs_small_table_83 = 2"
  "length mozjs_small_table_84 = 2"
  "length mozjs_small_table_85 = 2"
  "length mozjs_small_table_86 = 2"
  "length mozjs_small_table_87 = 2"
  "length mozjs_small_table_88 = 2"
  "length mozjs_small_table_89 = 2"
  "length mozjs_small_table_90 = 2"
  "length mozjs_small_table_91 = 2"
  "length mozjs_small_table_92 = 2"
  "length mozjs_small_table_93 = 2"
  "length mozjs_small_table_94 = 2"
  "length mozjs_small_table_95 = 2"
  "length mozjs_small_table_96 = 2"
  "length mozjs_small_table_97 = 2"
  "length mozjs_small_table_98 = 2"
  "length mozjs_small_table_99 = 2"
  "length mozjs_small_table_100 = 3"
  "length mozjs_small_table_101 = 3"
  "length mozjs_small_table_102 = 3"
  "length mozjs_small_table_103 = 3"
  "length mozjs_small_table_104 = 3"
  "length mozjs_small_table_105 = 3"
  "length mozjs_small_table_106 = 3"
  "length mozjs_small_table_107 = 3"
  "length mozjs_small_table_108 = 3"
  "length mozjs_small_table_109 = 3"
  "length mozjs_small_table_110 = 3"
  "length mozjs_small_table_111 = 3"
  "length mozjs_small_table_112 = 3"
  "length mozjs_small_table_113 = 3"
  "length mozjs_small_table_114 = 3"
  "length mozjs_small_table_115 = 3"
  "length mozjs_small_table_116 = 3"
  "length mozjs_small_table_117 = 3"
  "length mozjs_small_table_118 = 3"
  "length mozjs_small_table_119 = 3"
  "length mozjs_small_table_120 = 3"
  "length mozjs_small_table_121 = 2"
  "length mozjs_small_table_122 = 2"
  "length mozjs_small_table_123 = 2"
  "length mozjs_small_table_124 = 2"
  "length mozjs_small_table_125 = 2"
  "length mozjs_small_table_126 = 2"
  "length mozjs_small_table_127 = 2"
  "length mozjs_small_table_128 = 2"
  "length mozjs_small_table_129 = 2"
  "length mozjs_small_table_130 = 2"
  "length mozjs_small_table_131 = 2"
  "length mozjs_small_table_132 = 2"
  "length mozjs_small_table_133 = 2"
  "length mozjs_small_table_134 = 2"
  "length mozjs_small_table_135 = 2"
  "length mozjs_small_table_136 = 2"
  "length mozjs_small_table_137 = 2"
  "length mozjs_small_table_138 = 3"
  "length mozjs_small_table_139 = 2"
  "length mozjs_small_table_140 = 2"
  "length mozjs_small_table_141 = 3"
  "length mozjs_small_table_142 = 3"
  "length mozjs_small_table_143 = 3"
  "length mozjs_small_table_144 = 2"
  "length mozjs_small_table_145 = 2"
  "length mozjs_small_table_146 = 2"
  "length mozjs_small_table_147 = 2"
  "length mozjs_small_table_148 = 2"
  "length mozjs_small_table_149 = 2"
  "length mozjs_small_table_150 = 2"
  "length mozjs_small_table_151 = 2"
  "length mozjs_small_table_152 = 2"
  "length mozjs_small_table_153 = 2"
  "length mozjs_small_table_154 = 2"
  "length mozjs_small_table_155 = 2"
  "length mozjs_small_table_156 = 2"
  "length mozjs_small_table_157 = 2"
  "length mozjs_small_table_158 = 2"
  "length mozjs_small_table_159 = 2"
  "length mozjs_small_table_160 = 3"
  "length mozjs_small_table_161 = 2"
  "length mozjs_small_table_162 = 3"
  "length mozjs_small_table_163 = 3"
  "length mozjs_small_table_164 = 3"
  "length mozjs_small_table_165 = 2"
  "length mozjs_small_table_166 = 2"
  "length mozjs_small_table_167 = 2"
  "length mozjs_small_table_168 = 2"
  "length mozjs_small_table_169 = 2"
  "length mozjs_small_table_170 = 2"
  "length mozjs_small_table_171 = 2"
  "length mozjs_small_table_172 = 2"
  "length mozjs_small_table_173 = 2"
  "length mozjs_small_table_174 = 3"
  "length mozjs_small_table_175 = 3"
  "length mozjs_small_table_176 = 3"
  "length mozjs_small_table_177 = 2"
  "length mozjs_small_table_178 = 3"
  "length mozjs_small_table_179 = 2"
  "length mozjs_small_table_180 = 2"
  "length mozjs_small_table_181 = 2"
  "length mozjs_small_table_182 = 2"
  "length mozjs_small_table_183 = 3"
  "length mozjs_small_table_184 = 3"
  "length mozjs_small_table_185 = 3"
  "length mozjs_small_table_186 = 2"
  "length mozjs_small_table_187 = 3"
  "length mozjs_small_table_188 = 3"
  "length mozjs_small_table_189 = 3"
  "length mozjs_small_table_190 = 2"
  "length mozjs_small_table_191 = 3"
  "length mozjs_small_table_192 = 2"
  "length mozjs_small_table_193 = 2"
  "length mozjs_small_table_194 = 3"
  "length mozjs_small_table_195 = 2"
  "length mozjs_small_table_196 = 2"
  "length mozjs_small_table_197 = 2"
  "length mozjs_small_table_198 = 2"
  "length mozjs_small_table_199 = 2"
  "length mozjs_small_table_200 = 2"
  "length mozjs_small_table_201 = 2"
  "length mozjs_small_table_202 = 2"
  "length mozjs_small_table_203 = 2"
  "length mozjs_small_table_204 = 2"
  "length mozjs_small_table_205 = 2"
  "length mozjs_small_table_206 = 2"
  "length mozjs_small_table_207 = 2"
  "length mozjs_small_table_208 = 2"
  "length mozjs_small_table_209 = 2"
  "length mozjs_small_table_210 = 2"
  "length mozjs_small_table_211 = 2"
  "length mozjs_small_table_212 = 2"
  "length mozjs_small_table_213 = 2"
  "length mozjs_small_table_214 = 3"
  "length mozjs_small_table_215 = 2"
  "length mozjs_small_table_216 = 2"
  "length mozjs_small_table_217 = 2"
  "length mozjs_small_table_218 = 2"
  "length mozjs_small_table_219 = 2"
  "length mozjs_small_table_220 = 2"
  "length mozjs_small_table_221 = 2"
  "length mozjs_small_table_222 = 2"
  "length mozjs_small_table_223 = 2"
  "length mozjs_small_table_224 = 2"
  "length mozjs_small_table_225 = 2"
  "length mozjs_small_table_226 = 2"
  "length mozjs_small_table_227 = 2"
  "length mozjs_small_table_228 = 2"
  "length mozjs_small_table_229 = 2"
  "length mozjs_small_table_230 = 2"
  "length mozjs_small_table_231 = 2"
  "length mozjs_small_table_232 = 2"
  "length mozjs_small_table_233 = 2"
  "length mozjs_small_table_234 = 2"
  "length mozjs_small_table_235 = 2"
  "length mozjs_small_table_236 = 2"
  "length mozjs_small_table_237 = 2"
  "length mozjs_small_table_238 = 2"
  "length mozjs_small_table_239 = 2"
  "length mozjs_small_table_240 = 2"
  "length mozjs_small_table_241 = 2"
  "length mozjs_small_table_242 = 2"
  "length mozjs_small_table_243 = 2"
  "length mozjs_small_table_244 = 2"
  "length mozjs_small_table_245 = 2"
  "length mozjs_small_table_246 = 2"
  "length mozjs_small_table_247 = 2"
  "length mozjs_small_table_248 = 2"
  "length mozjs_small_table_249 = 2"
  "length mozjs_small_table_250 = 2"
  "length mozjs_small_table_251 = 2"
  "length mozjs_small_table_252 = 2"
  "length mozjs_small_table_253 = 2"
  "length mozjs_small_table_254 = 2"
  "length mozjs_small_table_255 = 2"
  "length mozjs_small_table_256 = 2"
  "length mozjs_small_table_257 = 2"
  "length mozjs_small_table_258 = 2"
  "length mozjs_small_table_259 = 2"
  "length mozjs_small_table_260 = 2"
  "length mozjs_small_table_261 = 2"
  "length mozjs_small_table_262 = 2"
  "length mozjs_small_table_263 = 2"
  "length mozjs_small_table_264 = 2"
  "length mozjs_small_table_265 = 2"
  "length mozjs_small_table_266 = 2"
  "length mozjs_small_table_267 = 2"
  "length mozjs_small_table_268 = 2"
  "length mozjs_small_table_269 = 2"
  "length mozjs_small_table_270 = 2"
  "length mozjs_small_table_271 = 2"
  "length mozjs_small_table_272 = 2"
  "length mozjs_small_table_273 = 2"
  "length mozjs_small_table_274 = 2"
  "length mozjs_small_table_275 = 2"
  "length mozjs_small_table_276 = 2"
  "length mozjs_small_table_277 = 2"
  "length mozjs_small_table_278 = 2"
  "length mozjs_small_table_279 = 3"
  "length mozjs_small_table_280 = 2"
  "length mozjs_small_table_281 = 3"
  "length mozjs_small_table_282 = 3"
  "length mozjs_small_table_283 = 3"
  "length mozjs_small_table_284 = 3"
  "length mozjs_small_table_285 = 3"
  "length mozjs_small_table_286 = 3"
  "length mozjs_small_table_287 = 3"
  "length mozjs_small_table_288 = 3"
  "length mozjs_small_table_289 = 3"
  "length mozjs_small_table_290 = 3"
  "length mozjs_small_table_291 = 4"
  "length mozjs_small_table_292 = 4"
  "length mozjs_small_table_293 = 4"
  "length mozjs_small_table_294 = 4"
  "length mozjs_small_table_295 = 5"
  "length mozjs_small_table_296 = 5"
  "length mozjs_small_table_297 = 5"
  "length mozjs_small_table_298 = 5"
  "length mozjs_small_table_299 = 5"
  "length mozjs_small_table_300 = 6"
  "length mozjs_small_table_301 = 6"
  "length mozjs_small_table_302 = 5"
  "length mozjs_small_table_303 = 5"
  "length mozjs_small_table_304 = 5"
  "length mozjs_small_table_305 = 5"
  "length mozjs_small_table_306 = 5"
  "length mozjs_small_table_307 = 5"
  "length mozjs_small_table_308 = 6"
  "length mozjs_small_table_309 = 5"
  "length mozjs_small_table_310 = 5"
  "length mozjs_small_table_311 = 5"
  "length mozjs_small_table_312 = 5"
  "length mozjs_small_table_313 = 5"
  "length mozjs_small_table_314 = 5"
  "length mozjs_small_table_315 = 7"
  "length mozjs_small_table_316 = 6"
  "length mozjs_small_table_317 = 6"
  "length mozjs_small_table_318 = 6"
  "length mozjs_small_table_319 = 6"
  "length mozjs_small_table_320 = 7"
  "length mozjs_small_table_321 = 7"
  "length mozjs_small_table_322 = 7"
  "length mozjs_small_table_323 = 8"
  "length mozjs_small_table_324 = 8"
  "length mozjs_small_table_325 = 10"
  "length mozjs_small_table_326 = 9"
  "length mozjs_small_table_327 = 10"
  "length mozjs_small_table_328 = 11"
  "length mozjs_small_table_329 = 11"
  "length mozjs_small_table_330 = 12"
  "length mozjs_small_table_331 = 11"
  "length mozjs_small_table_332 = 12"
  "length mozjs_small_table_333 = 12"
  "length mozjs_small_table_334 = 13"
  "length mozjs_small_table_335 = 12"
  "length mozjs_small_table_336 = 13"
  "length mozjs_small_table_337 = 12"
  "length mozjs_small_table_338 = 12"
  "length mozjs_small_table_339 = 13"
  "length mozjs_small_table_340 = 13"
  "length mozjs_small_table_341 = 13"
  "length mozjs_small_table_342 = 15"
  "length mozjs_small_table_343 = 15"
  "length mozjs_small_table_344 = 15"
  "length mozjs_small_table_345 = 15"
  "length mozjs_small_table_346 = 15"
  "length mozjs_small_table_347 = 15"
  "length mozjs_small_table_348 = 17"
  "length mozjs_small_table_349 = 19"
  "length mozjs_small_table_350 = 19"
  "length mozjs_small_table_351 = 19"
  "length mozjs_small_table_352 = 19"
  "length mozjs_small_table_353 = 18"
  "length mozjs_small_table_354 = 18"
  "length mozjs_small_table_355 = 19"
  "length mozjs_small_table_356 = 19"
  "length mozjs_small_table_357 = 19"
  "length mozjs_small_table_358 = 19"
  "length mozjs_small_table_359 = 18"
  "length mozjs_small_table_360 = 19"
  "length mozjs_small_table_361 = 20"
  "length mozjs_small_table_362 = 24"
  "length mozjs_small_table_363 = 24"
  "length mozjs_small_table_364 = 24"
  "length mozjs_small_table_365 = 24"
  "length mozjs_small_table_366 = 22"
  by (simp_all add: mozjs_small_table_names)

text \<open>The map numbers the small states and points to the runs in their order.\<close>

lemma mozjs_map_numbered:
  "numbered 0 mozjs_small_map_0 60"
  "numbered 60 mozjs_small_map_1 120"
  "numbered 120 mozjs_small_map_2 180"
  "numbered 180 mozjs_small_map_3 240"
  "numbered 240 mozjs_small_map_4 300"
  "numbered 300 mozjs_small_map_5 360"
  "numbered 360 mozjs_small_map_6 420"
  "numbered 420 mozjs_small_map_7 480"
  "numbered 480 mozjs_small_map_8 540"
  "numbered 540 mozjs_small_map_9 600"
  "numbered 600 mozjs_small_map_10 660"
  "numbered 660 mozjs_small_map_11 720"
  "numbered 720 mozjs_small_map_12 780"
  "numbered 780 mozjs_small_map_13 840"
  "numbered 840 mozjs_small_map_14 900"
  "numbered 900 mozjs_small_map_15 960"
  "numbered 960 mozjs_small_map_16 1020"
  "numbered 1020 mozjs_small_map_17 1080"
  "numbered 1080 mozjs_small_map_18 1140"
  "numbered 1140 mozjs_small_map_19 1200"
  "numbered 1200 mozjs_small_map_20 1260"
  "numbered 1260 mozjs_small_map_21 1320"
  "numbered 1320 mozjs_small_map_22 1380"
  "numbered 1380 mozjs_small_map_23 1440"
  "numbered 1440 mozjs_small_map_24 1491"
  by (simp_all add: mozjs_small_map_defs numbered_def SMALL_STATE_def upt_rec)

lemma mozjs_map_runs: "map snd mozjs_ts_small_parse_table_map = map fst mozjs_ts_small_parse_table"
  by (simp add: mozjs_ts_small_parse_table_map_def mozjs_ts_small_parse_table_def mozjs_small_map_defs mozjs_small_table_names)

lemma mozjs_map_states: "map fst mozjs_ts_small_parse_table_map = [0..<1879 - 388]"
proof -
  have "numbered 0 mozjs_ts_small_parse_table_map 1491"
    unfolding mozjs_ts_small_parse_table_map_def by ((rule numbered_append mozjs_map_numbered)+)
  then show ?thesis by (simp add: numbered_def)
qed

end
