(* ===== verification/Mozjs_Table.thy ===== *)
theory Mozjs_Table
  imports Mozjs_Symbols Mozjs_Rows Mozjs_Runs
begin

text \<open>
  The parse actions of the JavaScript grammar (\<^verbatim>\<open>ts_parse_actions\<close> of
  \<^verbatim>\<open>tree-sitter-mozjs/src/parser.c\<close>) and the language object that ties its tables together.
\<close>

section \<open>Parse actions\<close>

definition mozjs_parse_actions_0 :: "(nat \<times> TSParseActionEntry list) list" where
  "mozjs_parse_actions_0 =
    [(0, [Entry 0 False]),
     (1, [Entry 1 False, RECOVER]),
     (3, [Entry 1 False, SHIFT_EXTRA]),
     (5, [Entry 1 True, SHIFT_EXTRA]),
     (7, [Entry 1 True, REDUCE mozjs_sym_program 0 0 0]),
     (9, [Entry 1 False, SHIFT 529]),
     (11, [Entry 1 False, SHIFT 15]),
     (13, [Entry 1 False, SHIFT 202]),
     (15, [Entry 1 True, SHIFT 2]),
     (17, [Entry 1 False, SHIFT 1149]),
     (19, [Entry 1 False, SHIFT 1518]),
     (21, [Entry 1 False, SHIFT 1199]),
     (23, [Entry 1 False, SHIFT 458]),
     (25, [Entry 1 False, SHIFT 1201]),
     (27, [Entry 1 False, SHIFT 1202]),
     (29, [Entry 1 False, SHIFT 30]),
     (31, [Entry 1 False, SHIFT 1525]),
     (33, [Entry 1 False, SHIFT 1572]),
     (35, [Entry 1 False, SHIFT 1456]),
     (37, [Entry 1 True, SHIFT 119]),
     (39, [Entry 1 True, SHIFT 411]),
     (41, [Entry 1 False, SHIFT 1620]),
     (43, [Entry 1 False, SHIFT 63]),
     (45, [Entry 1 False, SHIFT 1712]),
     (47, [Entry 1 False, SHIFT 1421]),
     (49, [Entry 1 False, SHIFT 1409]),
     (51, [Entry 1 False, SHIFT 1564]),
     (53, [Entry 1 False, SHIFT 139]),
     (55, [Entry 1 False, SHIFT 167]),
     (57, [Entry 1 False, SHIFT 81]),
     (59, [Entry 1 True, SHIFT 108]),
     (61, [Entry 1 True, SHIFT 1286]),
     (63, [Entry 1 True, SHIFT 1332]),
     (65, [Entry 1 True, SHIFT 1382]),
     (67, [Entry 1 False, SHIFT 1258]),
     (69, [Entry 1 False, SHIFT 376]),
     (71, [Entry 1 False, SHIFT 1342]),
     (73, [Entry 1 False, SHIFT 193]),
     (75, [Entry 1 False, SHIFT 223]),
     (77, [Entry 1 False, SHIFT 1760]),
     (79, [Entry 1 True, SHIFT 223]),
     (81, [Entry 1 True, SHIFT 228]),
     (83, [Entry 1 True, SHIFT 1253]),
     (85, [Entry 1 True, SHIFT 793]),
     (87, [Entry 1 False, SHIFT 1849]),
     (89, [Entry 1 False, SHIFT 793]),
     (91, [Entry 1 False, SHIFT 815]),
     (93, [Entry 1 True, SHIFT 1460]),
     (95, [Entry 1 False, SHIFT 531]),
     (97, [Entry 1 True, SHIFT 422]),
     (99, [Entry 1 False, SHIFT 496]),
     (101, [Entry 1 False, SHIFT 135]),
     (103, [Entry 1 True, SHIFT 1140]),
     (105, [Entry 1 True, SHIFT 976]),
     (107, [Entry 1 True, SHIFT 92]),
     (109, [Entry 1 False, SHIFT 382]),
     (111, [Entry 1 False, SHIFT 9]),
     (113, [Entry 1 True, SHIFT 106]),
     (115, [Entry 1 False, SHIFT 358]),
     (117, [Entry 1 True, SHIFT 264]),
     (119, [Entry 1 True, SHIFT 818]),
     (121, [Entry 1 False, SHIFT 1417]),
     (123, [Entry 1 False, SHIFT 365]),
     (125, [Entry 1 True, SHIFT 1107]),
     (127, [Entry 1 False, SHIFT 361]),
     (129, [Entry 1 True, SHIFT 695]),
     (131, [Entry 1 False, SHIFT 491]),
     (133, [Entry 1 False, SHIFT 134]),
     (135, [Entry 1 True, SHIFT 581]),
     (137, [Entry 1 False, SHIFT 375]),
     (139, [Entry 1 False, SHIFT 14]),
     (141, [Entry 1 False, SHIFT 359]),
     (143, [Entry 1 False, SHIFT 364]),
     (145, [Entry 1 False, SHIFT 363]),
     (147, [Entry 1 True, SHIFT 696]),
     (149, [Entry 1 False, SHIFT 500]),
     (151, [Entry 1 False, SHIFT 129]),
     (153, [Entry 1 False, SHIFT 371]),
     (155, [Entry 1 False, SHIFT 13]),
     (157, [Entry 1 False, SHIFT 357]),
     (159, [Entry 1 False, SHIFT 360]),
     (161, [Entry 1 False, SHIFT 362]),
     (163, [Entry 1 True, REDUCE mozjs_aux_sym_program_repeat1 2 0 0]),
     (165, [Entry 2 False, REDUCE mozjs_aux_sym_program_repeat1 2 0 0, SHIFT_REPEAT 529]),
     (168, [Entry 2 False, REDUCE mozjs_aux_sym_program_repeat1 2 0 0, SHIFT_REPEAT 202]),
     (171, [Entry 1 False, REDUCE mozjs_aux_sym_program_repeat1 2 0 0]),
     (173, [Entry 2 True, REDUCE mozjs_aux_sym_program_repeat1 2 0 0, SHIFT_REPEAT 2]),
     (176, [Entry 2 False, REDUCE mozjs_aux_sym_program_repeat1 2 0 0, SHIFT_REPEAT 1149]),
     (179, [Entry 2 False, REDUCE mozjs_aux_sym_program_repeat1 2 0 0, SHIFT_REPEAT 1518]),
     (182, [Entry 2 False, REDUCE mozjs_aux_sym_program_repeat1 2 0 0, SHIFT_REPEAT 1199]),
     (185, [Entry 2 False, REDUCE mozjs_aux_sym_program_repeat1 2 0 0, SHIFT_REPEAT 458]),
     (188, [Entry 2 False, REDUCE mozjs_aux_sym_program_repeat1 2 0 0, SHIFT_REPEAT 1201]),
     (191, [Entry 2 False, REDUCE mozjs_aux_sym_program_repeat1 2 0 0, SHIFT_REPEAT 1202]),
     (194, [Entry 2 False, REDUCE mozjs_aux_sym_program_repeat1 2 0 0, SHIFT_REPEAT 30]),
     (197, [Entry 2 False, REDUCE mozjs_aux_sym_program_repeat1 2 0 0, SHIFT_REPEAT 1525]),
     (200, [Entry 2 False, REDUCE mozjs_aux_sym_program_repeat1 2 0 0, SHIFT_REPEAT 1572]),
     (203, [Entry 2 False, REDUCE mozjs_aux_sym_program_repeat1 2 0 0, SHIFT_REPEAT 1456]),
     (206, [Entry 2 True, REDUCE mozjs_aux_sym_program_repeat1 2 0 0, SHIFT_REPEAT 119]),
     (209, [Entry 2 True, REDUCE mozjs_aux_sym_program_repeat1 2 0 0, SHIFT_REPEAT 411]),
     (212, [Entry 2 False, REDUCE mozjs_aux_sym_program_repeat1 2 0 0, SHIFT_REPEAT 1620])]"

definition mozjs_parse_actions_1 :: "(nat \<times> TSParseActionEntry list) list" where
  "mozjs_parse_actions_1 =
    [(215, [Entry 2 False, REDUCE mozjs_aux_sym_program_repeat1 2 0 0, SHIFT_REPEAT 63]),
     (218, [Entry 2 False, REDUCE mozjs_aux_sym_program_repeat1 2 0 0, SHIFT_REPEAT 1712]),
     (221, [Entry 2 False, REDUCE mozjs_aux_sym_program_repeat1 2 0 0, SHIFT_REPEAT 1421]),
     (224, [Entry 2 False, REDUCE mozjs_aux_sym_program_repeat1 2 0 0, SHIFT_REPEAT 1409]),
     (227, [Entry 2 False, REDUCE mozjs_aux_sym_program_repeat1 2 0 0, SHIFT_REPEAT 1564]),
     (230, [Entry 2 False, REDUCE mozjs_aux_sym_program_repeat1 2 0 0, SHIFT_REPEAT 139]),
     (233, [Entry 2 False, REDUCE mozjs_aux_sym_program_repeat1 2 0 0, SHIFT_REPEAT 167]),
     (236, [Entry 2 False, REDUCE mozjs_aux_sym_program_repeat1 2 0 0, SHIFT_REPEAT 81]),
     (239, [Entry 2 True, REDUCE mozjs_aux_sym_program_repeat1 2 0 0, SHIFT_REPEAT 108]),
     (242, [Entry 2 True, REDUCE mozjs_aux_sym_program_repeat1 2 0 0, SHIFT_REPEAT 1286]),
     (245, [Entry 2 True, REDUCE mozjs_aux_sym_program_repeat1 2 0 0, SHIFT_REPEAT 1332]),
     (248, [Entry 2 True, REDUCE mozjs_aux_sym_program_repeat1 2 0 0, SHIFT_REPEAT 1382]),
     (251, [Entry 2 False, REDUCE mozjs_aux_sym_program_repeat1 2 0 0, SHIFT_REPEAT 1258]),
     (254, [Entry 2 False, REDUCE mozjs_aux_sym_program_repeat1 2 0 0, SHIFT_REPEAT 376]),
     (257, [Entry 2 False, REDUCE mozjs_aux_sym_program_repeat1 2 0 0, SHIFT_REPEAT 1342]),
     (260, [Entry 2 False, REDUCE mozjs_aux_sym_program_repeat1 2 0 0, SHIFT_REPEAT 193]),
     (263, [Entry 2 False, REDUCE mozjs_aux_sym_program_repeat1 2 0 0, SHIFT_REPEAT 223]),
     (266, [Entry 2 False, REDUCE mozjs_aux_sym_program_repeat1 2 0 0, SHIFT_REPEAT 1760]),
     (269, [Entry 2 True, REDUCE mozjs_aux_sym_program_repeat1 2 0 0, SHIFT_REPEAT 223]),
     (272, [Entry 2 True, REDUCE mozjs_aux_sym_program_repeat1 2 0 0, SHIFT_REPEAT 228]),
     (275, [Entry 2 True, REDUCE mozjs_aux_sym_program_repeat1 2 0 0, SHIFT_REPEAT 1253]),
     (278, [Entry 2 True, REDUCE mozjs_aux_sym_program_repeat1 2 0 0, SHIFT_REPEAT 793]),
     (281, [Entry 2 False, REDUCE mozjs_aux_sym_program_repeat1 2 0 0, SHIFT_REPEAT 1849]),
     (284, [Entry 2 False, REDUCE mozjs_aux_sym_program_repeat1 2 0 0, SHIFT_REPEAT 793]),
     (287, [Entry 2 False, REDUCE mozjs_aux_sym_program_repeat1 2 0 0, SHIFT_REPEAT 815]),
     (290, [Entry 2 True, REDUCE mozjs_aux_sym_program_repeat1 2 0 0, SHIFT_REPEAT 1460]),
     (293, [Entry 2 False, REDUCE mozjs_aux_sym_program_repeat1 2 0 0, SHIFT_REPEAT 531]),
     (296, [Entry 2 True, REDUCE mozjs_aux_sym_program_repeat1 2 0 0, SHIFT_REPEAT 422]),
     (299, [Entry 1 False, REDUCE mozjs_sym_switch_default 2 0 0]),
     (301, [Entry 1 True, REDUCE mozjs_sym_switch_default 2 0 0]),
     (303, [Entry 1 False, SHIFT 539]),
     (305, [Entry 1 False, SHIFT 543]),
     (307, [Entry 1 False, REDUCE mozjs_sym_primary_expression 1 0 1]),
     (309, [Entry 1 True, SHIFT 833]),
     (311, [Entry 1 True, REDUCE mozjs_sym_primary_expression 1 0 1]),
     (313, [Entry 1 True, SHIFT 691]),
     (315, [Entry 1 False, SHIFT 1505]),
     (317, [Entry 1 False, SHIFT 1203]),
     (319, [Entry 1 False, SHIFT 43]),
     (321, [Entry 3 True, REDUCE mozjs_sym_primary_expression 1 0 1, REDUCE
       mozjs_sym__property_name 1 0 4, SHIFT 119]),
     (325, [Entry 2 True, REDUCE mozjs_sym__property_name 1 0 4, SHIFT 61]),
     (328, [Entry 1 False, SHIFT 267]),
     (330, [Entry 2 True, REDUCE mozjs_sym_primary_expression 1 0 1, SHIFT 108]),
     (333, [Entry 2 False, REDUCE mozjs_sym_primary_expression 1 0 1, SHIFT 1286]),
     (336, [Entry 1 False, SHIFT 1290]),
     (338, [Entry 1 False, SHIFT 380]),
     (340, [Entry 1 False, SHIFT 1381]),
     (342, [Entry 1 True, SHIFT 163]),
     (344, [Entry 1 True, REDUCE mozjs_sym__augmented_assignment_lhs 1 0 1]),
     (346, [Entry 2 False, REDUCE mozjs_sym_primary_expression 1 0 1, SHIFT 223]),
     (349, [Entry 2 False, REDUCE mozjs_sym_primary_expression 1 0 1, SHIFT 1760]),
     (352, [Entry 2 True, REDUCE mozjs_sym_primary_expression 1 0 1, SHIFT 228]),
     (355, [Entry 2 True, REDUCE mozjs_sym_primary_expression 1 0 1, SHIFT 1253]),
     (358, [Entry 1 True, SHIFT 1849]),
     (360, [Entry 1 False, REDUCE mozjs_sym_switch_case 4 0 101]),
     (362, [Entry 1 True, REDUCE mozjs_sym_switch_case 4 0 101]),
     (364, [Entry 1 False, REDUCE mozjs_sym_switch_case 3 0 59]),
     (366, [Entry 1 True, REDUCE mozjs_sym_switch_case 3 0 59]),
     (368, [Entry 1 False, REDUCE mozjs_sym_switch_default 3 0 38]),
     (370, [Entry 1 True, REDUCE mozjs_sym_switch_default 3 0 38]),
     (372, [Entry 1 True, SHIFT 686]),
     (374, [Entry 1 True, SHIFT 599]),
     (376, [Entry 1 True, REDUCE mozjs_sym_program 1 0 0]),
     (378, [Entry 1 True, SHIFT 397]),
     (380, [Entry 1 True, SHIFT 369]),
     (382, [Entry 1 True, SHIFT 370]),
     (384, [Entry 1 False, SHIFT 504]),
     (386, [Entry 1 False, SHIFT 502]),
     (388, [Entry 1 True, SHIFT 868]),
     (390, [Entry 1 False, SHIFT 1447]),
     (392, [Entry 1 False, SHIFT 19]),
     (394, [Entry 2 True, REDUCE mozjs_sym_primary_expression 1 0 1, SHIFT 120]),
     (397, [Entry 1 False, SHIFT 80]),
     (399, [Entry 1 False, SHIFT 245]),
     (401, [Entry 2 True, REDUCE mozjs_sym_primary_expression 1 0 1, SHIFT 107]),
     (404, [Entry 2 False, REDUCE mozjs_sym_primary_expression 1 0 1, SHIFT 1275]),
     (407, [Entry 1 True, SHIFT 1341]),
     (409, [Entry 1 True, SHIFT 1346]),
     (411, [Entry 1 False, SHIFT 1265]),
     (413, [Entry 1 False, SHIFT 367]),
     (415, [Entry 1 False, SHIFT 1394]),
     (417, [Entry 1 True, SHIFT 179]),
     (419, [Entry 1 False, SHIFT 156]),
     (421, [Entry 2 False, REDUCE mozjs_sym_primary_expression 1 0 1, SHIFT 243]),
     (424, [Entry 2 False, REDUCE mozjs_sym_primary_expression 1 0 1, SHIFT 1773]),
     (427, [Entry 1 False, SHIFT 243]),
     (429, [Entry 1 True, SHIFT 243]),
     (431, [Entry 2 True, REDUCE mozjs_sym_primary_expression 1 0 1, SHIFT 244]),
     (434, [Entry 2 True, REDUCE mozjs_sym_primary_expression 1 0 1, SHIFT 1232]),
     (437, [Entry 1 True, SHIFT 645]),
     (439, [Entry 1 True, SHIFT 1764]),
     (441, [Entry 1 False, SHIFT 645]),
     (443, [Entry 1 False, SHIFT 679]),
     (445, [Entry 1 True, REDUCE mozjs_sym_program 2 0 0]),
     (447, [Entry 1 True, SHIFT 88]),
     (449, [Entry 1 True, SHIFT 86]),
     (451, [Entry 1 True, SHIFT 588]),
     (453, [Entry 1 True, SHIFT 590]),
     (455, [Entry 1 True, SHIFT 1052]),
     (457, [Entry 1 True, SHIFT 1057])]"

definition mozjs_parse_actions_2 :: "(nat \<times> TSParseActionEntry list) list" where
  "mozjs_parse_actions_2 =
    [(459, [Entry 1 True, SHIFT 400]),
     (461, [Entry 1 False, SHIFT 574]),
     (463, [Entry 1 False, SHIFT 568]),
     (465, [Entry 1 True, SHIFT 860]),
     (467, [Entry 1 False, SHIFT 75]),
     (469, [Entry 1 False, SHIFT 84]),
     (471, [Entry 1 False, SHIFT 316]),
     (473, [Entry 2 True, REDUCE mozjs_sym_primary_expression 1 0 1, SHIFT 105]),
     (476, [Entry 1 False, SHIFT 482]),
     (478, [Entry 1 False, SHIFT 157]),
     (480, [Entry 2 False, REDUCE mozjs_sym_primary_expression 1 0 1, SHIFT 314]),
     (483, [Entry 1 False, SHIFT 314]),
     (485, [Entry 1 True, SHIFT 314]),
     (487, [Entry 2 True, REDUCE mozjs_sym_primary_expression 1 0 1, SHIFT 315]),
     (490, [Entry 1 True, SHIFT 1825]),
     (492, [Entry 1 False, SHIFT 589]),
     (494, [Entry 2 True, REDUCE mozjs_sym_primary_expression 1 0 1, SHIFT 119]),
     (497, [Entry 1 True, SHIFT 61]),
     (499, [Entry 1 False, SHIFT 224]),
     (501, [Entry 1 True, SHIFT 45]),
     (503, [Entry 1 False, SHIFT 548]),
     (505, [Entry 1 False, SHIFT 172]),
     (507, [Entry 1 True, SHIFT 5]),
     (509, [Entry 1 False, SHIFT 1523]),
     (511, [Entry 1 False, SHIFT 453]),
     (513, [Entry 1 False, SHIFT 31]),
     (515, [Entry 1 False, SHIFT 1526]),
     (517, [Entry 1 False, SHIFT 1449]),
     (519, [Entry 1 False, SHIFT 1527]),
     (521, [Entry 1 False, SHIFT 1276]),
     (523, [Entry 1 False, SHIFT 379]),
     (525, [Entry 1 False, SHIFT 1379]),
     (527, [Entry 1 False, SHIFT 537]),
     (529, [Entry 1 True, REDUCE mozjs_sym_pattern 1 (-1) 1]),
     (531, [Entry 2 False, REDUCE mozjs_sym_pattern 1 (-1) 1, SHIFT 316]),
     (534, [Entry 1 True, SHIFT 194]),
     (536, [Entry 1 True, REDUCE mozjs_sym_rest_pattern 2 0 20]),
     (538, [Entry 2 True, REDUCE mozjs_sym_primary_expression 1 0 1, REDUCE mozjs_sym_pattern 1
       (-1) 1]),
     (541, [Entry 2 False, REDUCE mozjs_sym_pattern 1 (-1) 1, SHIFT 245]),
     (544, [Entry 1 False, SHIFT 1211]),
     (546, [Entry 1 False, SHIFT 215]),
     (548, [Entry 2 False, REDUCE mozjs_sym_primary_expression 1 0 1, SHIFT 215]),
     (551, [Entry 1 False, SHIFT 550]),
     (553, [Entry 1 False, SHIFT 527]),
     (555, [Entry 1 False, SHIFT 67]),
     (557, [Entry 1 False, SHIFT 82]),
     (559, [Entry 1 False, SHIFT 294]),
     (561, [Entry 1 False, SHIFT 381]),
     (563, [Entry 1 True, SHIFT 176]),
     (565, [Entry 1 False, SHIFT 213]),
     (567, [Entry 2 False, REDUCE mozjs_sym_primary_expression 1 0 1, SHIFT 355]),
     (570, [Entry 2 False, REDUCE mozjs_sym_primary_expression 1 0 1, SHIFT 1835]),
     (573, [Entry 1 False, SHIFT 355]),
     (575, [Entry 1 True, SHIFT 355]),
     (577, [Entry 2 True, REDUCE mozjs_sym_primary_expression 1 0 1, SHIFT 293]),
     (580, [Entry 1 True, SHIFT 1807]),
     (582, [Entry 1 False, SHIFT 798]),
     (584, [Entry 2 True, REDUCE mozjs_sym_primary_expression 1 0 1, REDUCE
       mozjs_sym_rest_pattern 2 0 20]),
     (587, [Entry 1 False, SHIFT 576]),
     (589, [Entry 1 False, SHIFT 570]),
     (591, [Entry 1 False, SHIFT 76]),
     (593, [Entry 1 False, SHIFT 83]),
     (595, [Entry 1 False, SHIFT 336]),
     (597, [Entry 1 False, SHIFT 483]),
     (599, [Entry 1 True, SHIFT 203]),
     (601, [Entry 1 False, SHIFT 216]),
     (603, [Entry 2 False, REDUCE mozjs_sym_primary_expression 1 0 1, SHIFT 334]),
     (606, [Entry 2 False, REDUCE mozjs_sym_primary_expression 1 0 1, SHIFT 1794]),
     (609, [Entry 1 False, SHIFT 334]),
     (611, [Entry 1 True, SHIFT 334]),
     (613, [Entry 2 True, REDUCE mozjs_sym_primary_expression 1 0 1, SHIFT 335]),
     (616, [Entry 1 True, SHIFT 1786]),
     (618, [Entry 1 False, SHIFT 969]),
     (620, [Entry 1 False, SHIFT 567]),
     (622, [Entry 1 False, SHIFT 572]),
     (624, [Entry 2 True, REDUCE mozjs_sym_primary_expression 1 0 1, SHIFT 860]),
     (627, [Entry 1 False, SHIFT 78]),
     (629, [Entry 1 False, SHIFT 85]),
     (631, [Entry 1 False, SHIFT 275]),
     (633, [Entry 1 False, SHIFT 440]),
     (635, [Entry 1 True, SHIFT 191]),
     (637, [Entry 1 False, SHIFT 165]),
     (639, [Entry 2 False, REDUCE mozjs_sym_primary_expression 1 0 1, SHIFT 273]),
     (642, [Entry 1 False, SHIFT 273]),
     (644, [Entry 1 True, SHIFT 273]),
     (646, [Entry 2 True, REDUCE mozjs_sym_primary_expression 1 0 1, SHIFT 274]),
     (649, [Entry 1 True, SHIFT 1761]),
     (651, [Entry 1 False, SHIFT 912]),
     (653, [Entry 1 False, SHIFT 247]),
     (655, [Entry 1 True, REDUCE mozjs_sym_yield_expression 1 0 0]),
     (657, [Entry 1 True, SHIFT 120]),
     (659, [Entry 1 False, REDUCE mozjs_sym_yield_expression 1 0 0]),
     (661, [Entry 1 True, SHIFT 107]),
     (663, [Entry 1 False, SHIFT 1275]),
     (665, [Entry 1 False, SHIFT 1773]),
     (667, [Entry 1 True, SHIFT 244]),
     (669, [Entry 1 True, SHIFT 1232]),
     (671, [Entry 1 False, SHIFT 227]),
     (673, [Entry 1 False, SHIFT 1286]),
     (675, [Entry 1 False, SHIFT 295])]"

definition mozjs_parse_actions_3 :: "(nat \<times> TSParseActionEntry list) list" where
  "mozjs_parse_actions_3 =
    [(677, [Entry 1 False, SHIFT 1835]),
     (679, [Entry 1 True, SHIFT 293]),
     (681, [Entry 1 False, SHIFT 337]),
     (683, [Entry 1 True, SHIFT 105]),
     (685, [Entry 1 False, SHIFT 1794]),
     (687, [Entry 1 True, SHIFT 335]),
     (689, [Entry 1 False, SHIFT 317]),
     (691, [Entry 1 True, SHIFT 315]),
     (693, [Entry 1 False, SHIFT 276]),
     (695, [Entry 1 True, SHIFT 274]),
     (697, [Entry 1 True, REDUCE mozjs_sym_statement_block 2 0 0]),
     (699, [Entry 1 False, REDUCE mozjs_sym_statement_block 2 0 0]),
     (701, [Entry 1 True, SHIFT 87]),
     (703, [Entry 1 True, REDUCE mozjs_sym_statement_block 3 0 0]),
     (705, [Entry 1 False, REDUCE mozjs_sym_statement_block 3 0 0]),
     (707, [Entry 1 True, SHIFT 90]),
     (709, [Entry 1 True, REDUCE mozjs_sym_class_body 3 0 70]),
     (711, [Entry 1 False, REDUCE mozjs_sym_class_body 3 0 70]),
     (713, [Entry 1 True, REDUCE mozjs_sym_statement_block 4 0 0]),
     (715, [Entry 1 False, REDUCE mozjs_sym_statement_block 4 0 0]),
     (717, [Entry 1 True, REDUCE mozjs_sym_class_body 2 0 0]),
     (719, [Entry 1 False, REDUCE mozjs_sym_class_body 2 0 0]),
     (721, [Entry 1 False, REDUCE mozjs_sym_object 2 0 0]),
     (723, [Entry 1 True, REDUCE mozjs_sym_object 2 0 0]),
     (725, [Entry 1 False, REDUCE mozjs_sym_object_pattern 2 0 0]),
     (727, [Entry 1 True, SHIFT 384]),
     (729, [Entry 1 True, REDUCE mozjs_sym_class_declaration 5 0 93]),
     (731, [Entry 1 False, REDUCE mozjs_sym_class_declaration 5 0 93]),
     (733, [Entry 1 False, REDUCE mozjs_sym_class 5 0 93]),
     (735, [Entry 1 True, REDUCE mozjs_sym_class 5 0 93]),
     (737, [Entry 1 True, SHIFT 464]),
     (739, [Entry 1 True, REDUCE mozjs_sym_class_declaration 3 0 37]),
     (741, [Entry 1 False, REDUCE mozjs_sym_class_declaration 3 0 37]),
     (743, [Entry 1 False, REDUCE mozjs_sym_class 3 0 37]),
     (745, [Entry 1 True, REDUCE mozjs_sym_class 3 0 37]),
     (747, [Entry 1 True, SHIFT 418]),
     (749, [Entry 1 True, REDUCE mozjs_sym_generator_function_declaration 6 0 99]),
     (751, [Entry 1 False, REDUCE mozjs_sym_generator_function_declaration 6 0 99]),
     (753, [Entry 1 False, REDUCE mozjs_sym_generator_function 6 0 99]),
     (755, [Entry 1 True, REDUCE mozjs_sym_generator_function 6 0 99]),
     (757, [Entry 1 True, SHIFT 473]),
     (759, [Entry 1 True, REDUCE mozjs_sym_class_declaration 4 0 72]),
     (761, [Entry 1 False, REDUCE mozjs_sym_class_declaration 4 0 72]),
     (763, [Entry 1 False, REDUCE mozjs_sym_class 4 0 72]),
     (765, [Entry 1 True, REDUCE mozjs_sym_class 4 0 72]),
     (767, [Entry 1 True, SHIFT 439]),
     (769, [Entry 1 True, REDUCE mozjs_sym_function_declaration 4 0 77]),
     (771, [Entry 1 False, REDUCE mozjs_sym_function_declaration 4 0 77]),
     (773, [Entry 1 False, REDUCE mozjs_sym_function_expression 4 0 77]),
     (775, [Entry 1 True, REDUCE mozjs_sym_function_expression 4 0 77]),
     (777, [Entry 1 True, SHIFT 442]),
     (779, [Entry 1 True, REDUCE mozjs_sym_class_declaration 4 0 81]),
     (781, [Entry 1 False, REDUCE mozjs_sym_class_declaration 4 0 81]),
     (783, [Entry 1 False, REDUCE mozjs_sym_class 4 0 81]),
     (785, [Entry 1 True, REDUCE mozjs_sym_class 4 0 81]),
     (787, [Entry 1 True, SHIFT 454]),
     (789, [Entry 1 True, REDUCE mozjs_sym_function_declaration 5 0 89]),
     (791, [Entry 1 False, REDUCE mozjs_sym_function_declaration 5 0 89]),
     (793, [Entry 1 False, REDUCE mozjs_sym_function_expression 5 0 89]),
     (795, [Entry 1 True, REDUCE mozjs_sym_function_expression 5 0 89]),
     (797, [Entry 1 True, SHIFT 462]),
     (799, [Entry 1 True, REDUCE mozjs_sym_generator_function_declaration 5 0 89]),
     (801, [Entry 1 False, REDUCE mozjs_sym_generator_function_declaration 5 0 89]),
     (803, [Entry 1 False, REDUCE mozjs_sym_generator_function 5 0 89]),
     (805, [Entry 1 True, REDUCE mozjs_sym_generator_function 5 0 89]),
     (807, [Entry 1 True, SHIFT 463]),
     (809, [Entry 1 False, SHIFT 489]),
     (811, [Entry 1 False, SHIFT 71]),
     (813, [Entry 1 False, SHIFT 391]),
     (815, [Entry 1 False, SHIFT 389]),
     (817, [Entry 1 False, SHIFT 549]),
     (819, [Entry 1 False, SHIFT 538]),
     (821, [Entry 1 True, SHIFT 115]),
     (823, [Entry 1 False, SHIFT 47]),
     (825, [Entry 1 True, SHIFT 650]),
     (827, [Entry 1 True, SHIFT 1275]),
     (829, [Entry 1 False, SHIFT 373]),
     (831, [Entry 1 False, SHIFT 751]),
     (833, [Entry 1 True, SHIFT 697]),
     (835, [Entry 1 True, SHIFT 685]),
     (837, [Entry 1 True, SHIFT 764]),
     (839, [Entry 1 True, SHIFT 831]),
     (841, [Entry 1 True, SHIFT 857]),
     (843, [Entry 1 True, REDUCE mozjs_sym_variable_declarator 1 0 5]),
     (845, [Entry 1 False, SHIFT 173]),
     (847, [Entry 1 True, SHIFT 272]),
     (849, [Entry 2 True, REDUCE mozjs_sym_variable_declarator 1 0 5, SHIFT 1639]),
     (852, [Entry 1 False, SHIFT 552]),
     (854, [Entry 1 False, SHIFT 557]),
     (856, [Entry 1 True, SHIFT 873]),
     (858, [Entry 1 False, SHIFT 1205]),
     (860, [Entry 1 False, SHIFT 488]),
     (862, [Entry 1 False, SHIFT 1200]),
     (864, [Entry 1 False, SHIFT 1210]),
     (866, [Entry 1 False, SHIFT 65]),
     (868, [Entry 1 True, SHIFT 642]),
     (870, [Entry 1 True, SHIFT 110]),
     (872, [Entry 1 False, SHIFT 386]),
     (874, [Entry 1 False, SHIFT 825]),
     (876, [Entry 2 True, REDUCE mozjs_aux_sym_array_repeat1 1 0 0, REDUCE
       mozjs_aux_sym_array_pattern_repeat1 1 0 0])]"

definition mozjs_parse_actions_4 :: "(nat \<times> TSParseActionEntry list) list" where
  "mozjs_parse_actions_4 =
    [(879, [Entry 1 False, SHIFT 528]),
     (881, [Entry 1 False, SHIFT 547]),
     (883, [Entry 1 True, SHIFT 871]),
     (885, [Entry 1 True, SHIFT 121]),
     (887, [Entry 1 False, SHIFT 41]),
     (889, [Entry 1 True, SHIFT 109]),
     (891, [Entry 1 True, SHIFT 1389]),
     (893, [Entry 1 False, SHIFT 378]),
     (895, [Entry 1 True, SHIFT 222]),
     (897, [Entry 1 False, SHIFT 741]),
     (899, [Entry 1 False, SHIFT 564]),
     (901, [Entry 1 False, SHIFT 561]),
     (903, [Entry 1 True, SHIFT 875]),
     (905, [Entry 1 False, SHIFT 74]),
     (907, [Entry 1 True, SHIFT 111]),
     (909, [Entry 1 False, SHIFT 392]),
     (911, [Entry 1 False, SHIFT 855]),
     (913, [Entry 1 True, SHIFT 1251]),
     (915, [Entry 1 True, SHIFT 1533]),
     (917, [Entry 1 True, REDUCE mozjs_aux_sym_array_pattern_repeat1 1 0 0]),
     (919, [Entry 1 True, SHIFT 123]),
     (921, [Entry 1 True, SHIFT 628]),
     (923, [Entry 1 True, SHIFT 313]),
     (925, [Entry 1 True, REDUCE mozjs_aux_sym_array_repeat1 1 0 0]),
     (927, [Entry 1 True, SHIFT 1659]),
     (929, [Entry 1 True, SHIFT 733]),
     (931, [Entry 1 True, SHIFT 1737]),
     (933, [Entry 1 True, SHIFT 1108]),
     (935, [Entry 1 False, SHIFT 1453]),
     (937, [Entry 1 True, SHIFT 101]),
     (939, [Entry 1 True, SHIFT 1183]),
     (941, [Entry 1 True, SHIFT 1199]),
     (943, [Entry 1 True, SHIFT 1201]),
     (945, [Entry 1 True, SHIFT 1202]),
     (947, [Entry 1 True, SHIFT 1774]),
     (949, [Entry 2 True, REDUCE mozjs_sym_primary_expression 1 0 1, REDUCE
       mozjs_sym__property_name 1 0 4]),
     (952, [Entry 1 True, SHIFT 1803]),
     (954, [Entry 1 True, SHIFT 1851]),
     (956, [Entry 1 True, SHIFT 1720]),
     (958, [Entry 1 True, SHIFT 1271]),
     (960, [Entry 1 True, SHIFT 1272]),
     (962, [Entry 1 True, SHIFT 1639]),
     (964, [Entry 1 True, SHIFT 419]),
     (966, [Entry 1 False, SHIFT 575]),
     (968, [Entry 1 False, SHIFT 573]),
     (970, [Entry 1 False, SHIFT 1207]),
     (972, [Entry 1 False, SHIFT 503]),
     (974, [Entry 1 False, SHIFT 73]),
     (976, [Entry 1 False, SHIFT 486]),
     (978, [Entry 1 False, SHIFT 965]),
     (980, [Entry 1 True, SHIFT 38]),
     (982, [Entry 1 True, SHIFT 69]),
     (984, [Entry 1 True, SHIFT 34]),
     (986, [Entry 1 True, SHIFT 53]),
     (988, [Entry 1 True, SHIFT 55]),
     (990, [Entry 1 True, SHIFT 56]),
     (992, [Entry 1 True, SHIFT 59]),
     (994, [Entry 1 True, SHIFT 35]),
     (996, [Entry 1 True, SHIFT 3]),
     (998, [Entry 1 True, SHIFT 4]),
     (1000, [Entry 1 False, SHIFT 506]),
     (1002, [Entry 1 False, SHIFT 511]),
     (1004, [Entry 1 False, SHIFT 29]),
     (1006, [Entry 1 False, SHIFT 1765]),
     (1008, [Entry 1 False, SHIFT 366]),
     (1010, [Entry 1 True, SHIFT 6]),
     (1012, [Entry 1 False, SHIFT 565]),
     (1014, [Entry 1 False, SHIFT 566]),
     (1016, [Entry 1 False, SHIFT 79]),
     (1018, [Entry 1 False, SHIFT 444]),
     (1020, [Entry 1 True, SHIFT 104]),
     (1022, [Entry 1 False, SHIFT 551]),
     (1024, [Entry 1 False, SHIFT 536]),
     (1026, [Entry 1 False, SHIFT 40]),
     (1028, [Entry 1 False, SHIFT 1758]),
     (1030, [Entry 1 False, SHIFT 374]),
     (1032, [Entry 1 False, SHIFT 699]),
     (1034, [Entry 1 False, SHIFT 541]),
     (1036, [Entry 1 False, SHIFT 533]),
     (1038, [Entry 1 False, SHIFT 68]),
     (1040, [Entry 1 False, SHIFT 377]),
     (1042, [Entry 1 False, SHIFT 577]),
     (1044, [Entry 1 False, SHIFT 571]),
     (1046, [Entry 1 False, SHIFT 77]),
     (1048, [Entry 1 False, SHIFT 484]),
     (1050, [Entry 1 False, SHIFT 542]),
     (1052, [Entry 1 False, SHIFT 540]),
     (1054, [Entry 1 False, SHIFT 42]),
     (1056, [Entry 1 False, SHIFT 372]),
     (1058, [Entry 1 False, SHIFT 784]),
     (1060, [Entry 1 False, SHIFT 560]),
     (1062, [Entry 1 False, SHIFT 553]),
     (1064, [Entry 1 False, SHIFT 72]),
     (1066, [Entry 1 False, SHIFT 385]),
     (1068, [Entry 1 False, SHIFT 827]),
     (1070, [Entry 1 False, SHIFT 1529]),
     (1072, [Entry 1 False, SHIFT 1522]),
     (1074, [Entry 2 False, REDUCE mozjs_sym_primary_expression 1 0 1, SHIFT 1138]),
     (1077, [Entry 3 True, REDUCE mozjs_sym_primary_expression 1 0 1, REDUCE
       mozjs_sym__property_name 1 0 4, SHIFT 127]),
     (1081, [Entry 2 True, REDUCE mozjs_sym_primary_expression 1 0 1, SHIFT 268])]"

definition mozjs_parse_actions_5 :: "(nat \<times> TSParseActionEntry list) list" where
  "mozjs_parse_actions_5 =
    [(1084, [Entry 1 True, SHIFT 1407]),
     (1086, [Entry 1 True, SHIFT 1370]),
     (1088, [Entry 1 False, SHIFT 1343]),
     (1090, [Entry 1 True, SHIFT 1545]),
     (1092, [Entry 1 False, SHIFT 1090]),
     (1094, [Entry 1 False, SHIFT 1779]),
     (1096, [Entry 1 False, SHIFT 1079]),
     (1098, [Entry 1 False, SHIFT 1097]),
     (1100, [Entry 1 False, SHIFT 1876]),
     (1102, [Entry 1 False, SHIFT 1771]),
     (1104, [Entry 2 True, REDUCE mozjs_sym_primary_expression 1 0 1, SHIFT 127]),
     (1107, [Entry 1 False, SHIFT 1327]),
     (1109, [Entry 1 True, REDUCE mozjs_sym_try_statement 2 0 7]),
     (1111, [Entry 1 False, REDUCE mozjs_sym_try_statement 2 0 7]),
     (1113, [Entry 1 False, SHIFT 1484]),
     (1115, [Entry 1 False, SHIFT 1660]),
     (1117, [Entry 1 True, SHIFT 383]),
     (1119, [Entry 1 False, SHIFT 1283]),
     (1121, [Entry 1 True, SHIFT 995]),
     (1123, [Entry 1 False, SHIFT 1279]),
     (1125, [Entry 1 True, SHIFT 118]),
     (1127, [Entry 1 False, SHIFT 1831]),
     (1129, [Entry 1 False, SHIFT 1830]),
     (1131, [Entry 1 False, SHIFT 1810]),
     (1133, [Entry 1 False, SHIFT 1775]),
     (1135, [Entry 1 False, SHIFT 1403]),
     (1137, [Entry 1 False, SHIFT 1878]),
     (1139, [Entry 1 False, SHIFT 1819]),
     (1141, [Entry 1 False, SHIFT 1383]),
     (1143, [Entry 1 True, REDUCE mozjs_sym_try_statement 3 0 30]),
     (1145, [Entry 1 False, REDUCE mozjs_sym_try_statement 3 0 30]),
     (1147, [Entry 1 True, REDUCE mozjs_sym_do_statement 4 0 63]),
     (1149, [Entry 1 False, REDUCE mozjs_sym_do_statement 4 0 63]),
     (1151, [Entry 1 True, SHIFT 438]),
     (1153, [Entry 1 True, REDUCE mozjs_sym_catch_clause 2 0 7]),
     (1155, [Entry 1 False, REDUCE mozjs_sym_catch_clause 2 0 7]),
     (1157, [Entry 1 True, REDUCE mozjs_sym_parenthesized_expression 3 0 0]),
     (1159, [Entry 1 False, REDUCE mozjs_sym_parenthesized_expression 3 0 0]),
     (1161, [Entry 1 True, SHIFT 396]),
     (1163, [Entry 1 True, SHIFT 398]),
     (1165, [Entry 1 True, REDUCE mozjs_sym_if_statement 3 0 26]),
     (1167, [Entry 1 False, REDUCE mozjs_sym_if_statement 3 0 26]),
     (1169, [Entry 1 False, SHIFT 66]),
     (1171, [Entry 1 True, REDUCE mozjs_sym_catch_clause 5 0 107]),
     (1173, [Entry 1 False, REDUCE mozjs_sym_catch_clause 5 0 107]),
     (1175, [Entry 1 True, REDUCE mozjs_sym_break_statement 2 0 0]),
     (1177, [Entry 1 False, REDUCE mozjs_sym_break_statement 2 0 0]),
     (1179, [Entry 1 True, REDUCE mozjs_sym_empty_statement 1 0 0]),
     (1181, [Entry 1 False, REDUCE mozjs_sym_empty_statement 1 0 0]),
     (1183, [Entry 1 True, REDUCE mozjs_sym_export_statement 4 0 54]),
     (1185, [Entry 1 False, REDUCE mozjs_sym_export_statement 4 0 54]),
     (1187, [Entry 1 True, REDUCE mozjs_sym_finally_clause 2 0 7]),
     (1189, [Entry 1 False, REDUCE mozjs_sym_finally_clause 2 0 7]),
     (1191, [Entry 1 True, REDUCE mozjs_sym_try_statement 4 0 64]),
     (1193, [Entry 1 False, REDUCE mozjs_sym_try_statement 4 0 64]),
     (1195, [Entry 1 True, REDUCE mozjs_sym_export_statement 3 0 0]),
     (1197, [Entry 1 False, REDUCE mozjs_sym_export_statement 3 0 0]),
     (1199, [Entry 1 True, REDUCE mozjs_sym_continue_statement 2 0 0]),
     (1201, [Entry 1 False, REDUCE mozjs_sym_continue_statement 2 0 0]),
     (1203, [Entry 1 True, REDUCE mozjs_sym_debugger_statement 2 0 0]),
     (1205, [Entry 1 False, REDUCE mozjs_sym_debugger_statement 2 0 0]),
     (1207, [Entry 1 True, REDUCE mozjs_sym_class_declaration 4 0 37]),
     (1209, [Entry 1 False, REDUCE mozjs_sym_class_declaration 4 0 37]),
     (1211, [Entry 1 True, REDUCE mozjs_sym_return_statement 2 0 0]),
     (1213, [Entry 1 False, REDUCE mozjs_sym_return_statement 2 0 0]),
     (1215, [Entry 1 True, REDUCE mozjs_sym_export_statement 4 0 80]),
     (1217, [Entry 1 False, REDUCE mozjs_sym_export_statement 4 0 80]),
     (1219, [Entry 1 True, REDUCE mozjs_sym_statement 1 0 0]),
     (1221, [Entry 1 False, REDUCE mozjs_sym_statement 1 0 0]),
     (1223, [Entry 1 True, REDUCE mozjs_sym_export_statement 3 0 14]),
     (1225, [Entry 1 False, REDUCE mozjs_sym_export_statement 3 0 14]),
     (1227, [Entry 1 True, REDUCE mozjs_sym_import_statement 3 0 21]),
     (1229, [Entry 1 False, REDUCE mozjs_sym_import_statement 3 0 21]),
     (1231, [Entry 1 True, REDUCE mozjs_sym_with_statement 3 0 22]),
     (1233, [Entry 1 False, REDUCE mozjs_sym_with_statement 3 0 22]),
     (1235, [Entry 1 True, REDUCE mozjs_sym_declaration 1 0 0]),
     (1237, [Entry 1 False, REDUCE mozjs_sym_declaration 1 0 0]),
     (1239, [Entry 1 True, REDUCE mozjs_sym_variable_declaration 3 0 0]),
     (1241, [Entry 1 False, REDUCE mozjs_sym_variable_declaration 3 0 0]),
     (1243, [Entry 1 True, REDUCE mozjs_sym_lexical_declaration 3 0 25]),
     (1245, [Entry 1 False, REDUCE mozjs_sym_lexical_declaration 3 0 25]),
     (1247, [Entry 1 True, REDUCE mozjs_sym_using_declaration 3 0 25]),
     (1249, [Entry 1 False, REDUCE mozjs_sym_using_declaration 3 0 25]),
     (1251, [Entry 1 True, REDUCE mozjs_sym_import_statement 5 0 54]),
     (1253, [Entry 1 False, REDUCE mozjs_sym_import_statement 5 0 54]),
     (1255, [Entry 1 True, REDUCE mozjs_sym_using_declaration 5 0 60]),
     (1257, [Entry 1 False, REDUCE mozjs_sym_using_declaration 5 0 60]),
     (1259, [Entry 1 True, REDUCE mozjs_sym_switch_statement 3 0 27]),
     (1261, [Entry 1 False, REDUCE mozjs_sym_switch_statement 3 0 27]),
     (1263, [Entry 1 True, REDUCE mozjs_sym_else_clause 2 0 0]),
     (1265, [Entry 1 False, REDUCE mozjs_sym_else_clause 2 0 0]),
     (1267, [Entry 1 True, REDUCE mozjs_sym_switch_body 3 0 0]),
     (1269, [Entry 1 False, REDUCE mozjs_sym_switch_body 3 0 0]),
     (1271, [Entry 1 True, REDUCE mozjs_sym_export_statement 4 0 55]),
     (1273, [Entry 1 False, REDUCE mozjs_sym_export_statement 4 0 55]),
     (1275, [Entry 1 True, REDUCE mozjs_sym_do_statement 5 0 63]),
     (1277, [Entry 1 False, REDUCE mozjs_sym_do_statement 5 0 63]),
     (1279, [Entry 1 True, REDUCE mozjs_sym_class_declaration 5 0 72]),
     (1281, [Entry 1 False, REDUCE mozjs_sym_class_declaration 5 0 72]),
     (1283, [Entry 1 False, SHIFT 1793])]"

definition mozjs_parse_actions_6 :: "(nat \<times> TSParseActionEntry list) list" where
  "mozjs_parse_actions_6 =
    [(1285, [Entry 1 False, SHIFT 1780]),
     (1287, [Entry 1 True, REDUCE mozjs_sym_export_statement 2 0 3]),
     (1289, [Entry 1 False, REDUCE mozjs_sym_export_statement 2 0 3]),
     (1291, [Entry 1 True, REDUCE mozjs_sym_function_declaration 5 0 77]),
     (1293, [Entry 1 False, REDUCE mozjs_sym_function_declaration 5 0 77]),
     (1295, [Entry 1 True, REDUCE mozjs_sym_for_in_statement 3 0 28]),
     (1297, [Entry 1 False, REDUCE mozjs_sym_for_in_statement 3 0 28]),
     (1299, [Entry 1 True, REDUCE mozjs_sym_while_statement 3 0 29]),
     (1301, [Entry 1 False, REDUCE mozjs_sym_while_statement 3 0 29]),
     (1303, [Entry 1 True, REDUCE mozjs_sym_export_statement 5 0 92]),
     (1305, [Entry 1 False, REDUCE mozjs_sym_export_statement 5 0 92]),
     (1307, [Entry 1 True, REDUCE mozjs_sym_for_in_statement 4 0 62]),
     (1309, [Entry 1 False, REDUCE mozjs_sym_for_in_statement 4 0 62]),
     (1311, [Entry 1 True, REDUCE mozjs_sym_break_statement 3 0 32]),
     (1313, [Entry 1 False, REDUCE mozjs_sym_break_statement 3 0 32]),
     (1315, [Entry 1 True, REDUCE mozjs_sym_continue_statement 3 0 32]),
     (1317, [Entry 1 False, REDUCE mozjs_sym_continue_statement 3 0 32]),
     (1319, [Entry 1 True, REDUCE mozjs_sym_return_statement 3 0 0]),
     (1321, [Entry 1 False, REDUCE mozjs_sym_return_statement 3 0 0]),
     (1323, [Entry 1 True, REDUCE mozjs_sym_throw_statement 3 0 0]),
     (1325, [Entry 1 False, REDUCE mozjs_sym_throw_statement 3 0 0]),
     (1327, [Entry 1 True, REDUCE mozjs_sym_class_declaration 5 0 81]),
     (1329, [Entry 1 False, REDUCE mozjs_sym_class_declaration 5 0 81]),
     (1331, [Entry 1 True, REDUCE mozjs_sym_labeled_statement 3 (-1) 15]),
     (1333, [Entry 1 False, REDUCE mozjs_sym_labeled_statement 3 (-1) 15]),
     (1335, [Entry 1 True, REDUCE mozjs_sym_expression_statement 2 0 0]),
     (1337, [Entry 1 False, REDUCE mozjs_sym_expression_statement 2 0 0]),
     (1339, [Entry 1 True, REDUCE mozjs_sym_for_statement 6 0 97]),
     (1341, [Entry 1 False, REDUCE mozjs_sym_for_statement 6 0 97]),
     (1343, [Entry 1 True, REDUCE mozjs_sym_import_statement 4 0 54]),
     (1345, [Entry 1 False, REDUCE mozjs_sym_import_statement 4 0 54]),
     (1347, [Entry 1 True, REDUCE mozjs_sym_import_statement 4 0 21]),
     (1349, [Entry 1 False, REDUCE mozjs_sym_import_statement 4 0 21]),
     (1351, [Entry 1 True, REDUCE mozjs_sym_function_declaration 6 0 89]),
     (1353, [Entry 1 False, REDUCE mozjs_sym_function_declaration 6 0 89]),
     (1355, [Entry 1 True, REDUCE mozjs_sym_generator_function_declaration 6 0 89]),
     (1357, [Entry 1 False, REDUCE mozjs_sym_generator_function_declaration 6 0 89]),
     (1359, [Entry 1 True, REDUCE mozjs_sym_class_declaration 6 0 93]),
     (1361, [Entry 1 False, REDUCE mozjs_sym_class_declaration 6 0 93]),
     (1363, [Entry 1 True, REDUCE mozjs_sym_variable_declaration 4 0 0]),
     (1365, [Entry 1 False, REDUCE mozjs_sym_variable_declaration 4 0 0]),
     (1367, [Entry 1 True, REDUCE mozjs_sym_lexical_declaration 4 0 25]),
     (1369, [Entry 1 False, REDUCE mozjs_sym_lexical_declaration 4 0 25]),
     (1371, [Entry 1 True, REDUCE mozjs_sym_for_statement 7 0 104]),
     (1373, [Entry 1 False, REDUCE mozjs_sym_for_statement 7 0 104]),
     (1375, [Entry 1 True, REDUCE mozjs_sym_for_statement 7 0 105]),
     (1377, [Entry 1 False, REDUCE mozjs_sym_for_statement 7 0 105]),
     (1379, [Entry 1 True, REDUCE mozjs_sym_using_declaration 4 0 25]),
     (1381, [Entry 1 False, REDUCE mozjs_sym_using_declaration 4 0 25]),
     (1383, [Entry 1 True, REDUCE mozjs_sym_for_statement 7 0 106]),
     (1385, [Entry 1 False, REDUCE mozjs_sym_for_statement 7 0 106]),
     (1387, [Entry 1 True, REDUCE mozjs_sym_using_declaration 4 0 60]),
     (1389, [Entry 1 False, REDUCE mozjs_sym_using_declaration 4 0 60]),
     (1391, [Entry 1 True, REDUCE mozjs_sym_generator_function_declaration 7 0 99]),
     (1393, [Entry 1 False, REDUCE mozjs_sym_generator_function_declaration 7 0 99]),
     (1395, [Entry 1 True, REDUCE mozjs_sym_for_statement 8 0 115]),
     (1397, [Entry 1 False, REDUCE mozjs_sym_for_statement 8 0 115]),
     (1399, [Entry 1 True, REDUCE mozjs_sym_for_statement 8 0 116]),
     (1401, [Entry 1 False, REDUCE mozjs_sym_for_statement 8 0 116]),
     (1403, [Entry 1 True, REDUCE mozjs_sym_for_statement 8 0 117]),
     (1405, [Entry 1 False, REDUCE mozjs_sym_for_statement 8 0 117]),
     (1407, [Entry 1 True, REDUCE mozjs_sym_for_statement 9 0 120]),
     (1409, [Entry 1 False, REDUCE mozjs_sym_for_statement 9 0 120]),
     (1411, [Entry 1 True, REDUCE mozjs_sym_if_statement 4 0 61]),
     (1413, [Entry 1 False, REDUCE mozjs_sym_if_statement 4 0 61]),
     (1415, [Entry 1 True, REDUCE mozjs_sym_switch_body 2 0 0]),
     (1417, [Entry 1 False, REDUCE mozjs_sym_switch_body 2 0 0]),
     (1419, [Entry 1 False, SHIFT 1790]),
     (1421, [Entry 1 False, SHIFT 1789]),
     (1423, [Entry 1 True, REDUCE mozjs_sym_export_statement 3 0 52]),
     (1425, [Entry 1 False, REDUCE mozjs_sym_export_statement 3 0 52]),
     (1427, [Entry 1 True, REDUCE mozjs_sym_try_statement 3 0 31]),
     (1429, [Entry 1 False, REDUCE mozjs_sym_try_statement 3 0 31]),
     (1431, [Entry 1 False, SHIFT 1212]),
     (1433, [Entry 1 False, SHIFT 112]),
     (1435, [Entry 1 False, REDUCE mozjs_sym_primary_expression 1 0 0]),
     (1437, [Entry 1 True, REDUCE mozjs_sym_primary_expression 1 0 0]),
     (1439, [Entry 2 True, REDUCE mozjs_sym_primary_expression 1 0 0, REDUCE
       mozjs_sym__property_name 1 0 4]),
     (1442, [Entry 1 False, SHIFT 269]),
     (1444, [Entry 1 True, SHIFT 155]),
     (1446, [Entry 1 True, REDUCE mozjs_sym__augmented_assignment_lhs 1 0 0]),
     (1448, [Entry 1 False, REDUCE mozjs_sym_member_expression 3 0 46]),
     (1450, [Entry 1 True, REDUCE mozjs_sym_member_expression 3 0 46]),
     (1452, [Entry 1 False, REDUCE mozjs_sym_member_expression 3 0 47]),
     (1454, [Entry 1 True, REDUCE mozjs_sym_member_expression 3 0 47]),
     (1456, [Entry 1 False, REDUCE mozjs_sym_member_expression 3 0 48]),
     (1458, [Entry 1 True, REDUCE mozjs_sym_member_expression 3 0 48]),
     (1460, [Entry 1 False, REDUCE mozjs_sym_subscript_expression 5 0 91]),
     (1462, [Entry 1 True, REDUCE mozjs_sym_subscript_expression 5 0 91]),
     (1464, [Entry 1 False, REDUCE mozjs_sym_subscript_expression 4 0 79]),
     (1466, [Entry 1 True, REDUCE mozjs_sym_subscript_expression 4 0 79]),
     (1468, [Entry 1 False, REDUCE mozjs_sym_member_expression 3 0 45]),
     (1470, [Entry 1 True, REDUCE mozjs_sym_member_expression 3 0 45]),
     (1472, [Entry 1 False, SHIFT 318]),
     (1474, [Entry 1 False, REDUCE mozjs_sym__for_header 7 0 110]),
     (1476, [Entry 1 True, REDUCE mozjs_sym__for_header 7 0 110]),
     (1478, [Entry 1 False, SHIFT 1496]),
     (1480, [Entry 1 False, SHIFT 136]),
     (1482, [Entry 2 True, REDUCE mozjs_sym_primary_expression 1 0 1, SHIFT 118]),
     (1485, [Entry 1 False, SHIFT 248])]"

definition mozjs_parse_actions_7 :: "(nat \<times> TSParseActionEntry list) list" where
  "mozjs_parse_actions_7 =
    [(1487, [Entry 1 True, SHIFT 218]),
     (1489, [Entry 1 False, REDUCE mozjs_sym__for_header 5 0 96]),
     (1491, [Entry 1 True, REDUCE mozjs_sym__for_header 5 0 96]),
     (1493, [Entry 1 False, REDUCE mozjs_sym__for_header 6 0 102]),
     (1495, [Entry 1 True, REDUCE mozjs_sym__for_header 6 0 102]),
     (1497, [Entry 1 False, REDUCE mozjs_sym__for_header 6 0 103]),
     (1499, [Entry 1 True, REDUCE mozjs_sym__for_header 6 0 103]),
     (1501, [Entry 1 False, REDUCE mozjs_sym__for_header 7 0 109]),
     (1503, [Entry 1 True, REDUCE mozjs_sym__for_header 7 0 109]),
     (1505, [Entry 1 False, REDUCE mozjs_sym__for_header 7 0 111]),
     (1507, [Entry 1 True, REDUCE mozjs_sym__for_header 7 0 111]),
     (1509, [Entry 1 False, REDUCE mozjs_sym__for_header 7 0 112]),
     (1511, [Entry 1 True, REDUCE mozjs_sym__for_header 7 0 112]),
     (1513, [Entry 1 False, REDUCE mozjs_sym__for_header 7 0 113]),
     (1515, [Entry 1 True, REDUCE mozjs_sym__for_header 7 0 113]),
     (1517, [Entry 1 False, REDUCE mozjs_sym__for_header 7 0 114]),
     (1519, [Entry 1 True, REDUCE mozjs_sym__for_header 7 0 114]),
     (1521, [Entry 1 False, REDUCE mozjs_sym__for_header 8 0 118]),
     (1523, [Entry 1 True, REDUCE mozjs_sym__for_header 8 0 118]),
     (1525, [Entry 1 False, REDUCE mozjs_sym__for_header 8 0 119]),
     (1527, [Entry 1 True, REDUCE mozjs_sym__for_header 8 0 119]),
     (1529, [Entry 1 False, REDUCE mozjs_sym__for_header 5 0 95]),
     (1531, [Entry 1 True, REDUCE mozjs_sym__for_header 5 0 95]),
     (1533, [Entry 1 True, REDUCE mozjs_sym_pattern 1 (-1) 0]),
     (1535, [Entry 2 False, REDUCE mozjs_sym_pattern 1 (-1) 0, SHIFT 318]),
     (1538, [Entry 1 True, SHIFT 196]),
     (1540, [Entry 1 False, SHIFT 230]),
     (1542, [Entry 1 True, SHIFT 180]),
     (1544, [Entry 1 True, REDUCE mozjs_sym_rest_pattern 2 0 0]),
     (1546, [Entry 2 True, REDUCE mozjs_sym_primary_expression 1 0 0, REDUCE mozjs_sym_pattern 1
       (-1) 0]),
     (1549, [Entry 2 False, REDUCE mozjs_sym_pattern 1 (-1) 0, SHIFT 248]),
     (1552, [Entry 1 False, SHIFT 296]),
     (1554, [Entry 1 True, SHIFT 184]),
     (1556, [Entry 2 False, REDUCE mozjs_sym_primary_expression 1 0 0, SHIFT 184]),
     (1559, [Entry 1 True, SHIFT 215]),
     (1561, [Entry 2 True, REDUCE mozjs_sym_primary_expression 1 0 0, REDUCE
       mozjs_sym_rest_pattern 2 0 0]),
     (1564, [Entry 1 True, SHIFT 192]),
     (1566, [Entry 1 False, SHIFT 277]),
     (1568, [Entry 1 False, SHIFT 338]),
     (1570, [Entry 1 True, SHIFT 204]),
     (1572, [Entry 1 True, SHIFT 631]),
     (1574, [Entry 1 False, REDUCE mozjs_sym_new_expression 2 0 8]),
     (1576, [Entry 1 True, REDUCE mozjs_sym_new_expression 2 0 8]),
     (1578, [Entry 1 True, SHIFT 122]),
     (1580, [Entry 1 True, SHIFT 181]),
     (1582, [Entry 1 True, SHIFT 1632]),
     (1584, [Entry 1 True, SHIFT 1306]),
     (1586, [Entry 1 False, REDUCE mozjs_sym_expression 1 0 0]),
     (1588, [Entry 1 True, REDUCE mozjs_sym_expression 1 0 0]),
     (1590, [Entry 1 False, REDUCE mozjs_sym_update_expression 2 0 9]),
     (1592, [Entry 1 True, REDUCE mozjs_sym_update_expression 2 0 9]),
     (1594, [Entry 1 True, SHIFT 1431]),
     (1596, [Entry 1 False, REDUCE mozjs_sym_await_expression 2 0 0]),
     (1598, [Entry 1 True, REDUCE mozjs_sym_await_expression 2 0 0]),
     (1600, [Entry 1 True, SHIFT 594]),
     (1602, [Entry 1 True, SHIFT 634]),
     (1604, [Entry 1 False, REDUCE mozjs_sym_unary_expression 2 0 9]),
     (1606, [Entry 1 True, REDUCE mozjs_sym_unary_expression 2 0 9]),
     (1608, [Entry 1 False, REDUCE mozjs_sym_arguments 3 0 0]),
     (1610, [Entry 1 True, REDUCE mozjs_sym_arguments 3 0 0]),
     (1612, [Entry 1 False, REDUCE mozjs_sym_update_expression 2 0 11]),
     (1614, [Entry 1 True, REDUCE mozjs_sym_update_expression 2 0 11]),
     (1616, [Entry 1 False, REDUCE mozjs_sym_call_expression 2 0 10]),
     (1618, [Entry 1 True, REDUCE mozjs_sym_call_expression 2 0 10]),
     (1620, [Entry 1 False, REDUCE mozjs_sym_jsx_element 2 0 12]),
     (1622, [Entry 1 True, REDUCE mozjs_sym_jsx_element 2 0 12]),
     (1624, [Entry 1 False, REDUCE mozjs_sym_class 2 0 7]),
     (1626, [Entry 1 True, REDUCE mozjs_sym_class 2 0 7]),
     (1628, [Entry 1 False, REDUCE mozjs_sym_arrow_function 3 0 17]),
     (1630, [Entry 1 True, REDUCE mozjs_sym_arrow_function 3 0 17]),
     (1632, [Entry 1 False, REDUCE mozjs_sym_object 3 0 18]),
     (1634, [Entry 1 True, REDUCE mozjs_sym_object 3 0 18]),
     (1636, [Entry 2 True, REDUCE mozjs_sym_object 3 0 18, REDUCE mozjs_sym_object_pattern 3 0
       19]),
     (1639, [Entry 1 False, REDUCE mozjs_sym_object_pattern 3 0 19]),
     (1641, [Entry 1 False, REDUCE mozjs_sym_jsx_closing_element 3 0 33]),
     (1643, [Entry 1 True, REDUCE mozjs_sym_jsx_closing_element 3 0 33]),
     (1645, [Entry 1 False, REDUCE mozjs_sym_class 4 0 82]),
     (1647, [Entry 1 True, REDUCE mozjs_sym_class 4 0 82]),
     (1649, [Entry 1 False, REDUCE mozjs_sym_generator_function 5 0 88]),
     (1651, [Entry 1 True, REDUCE mozjs_sym_generator_function 5 0 88]),
     (1653, [Entry 1 False, REDUCE mozjs_sym_object 3 0 0]),
     (1655, [Entry 1 True, REDUCE mozjs_sym_object 3 0 0]),
     (1657, [Entry 1 False, REDUCE mozjs_sym_meta_property 3 0 0]),
     (1659, [Entry 1 True, REDUCE mozjs_sym_meta_property 3 0 0]),
     (1661, [Entry 1 False, REDUCE mozjs_sym_arguments 4 0 0]),
     (1663, [Entry 1 True, REDUCE mozjs_sym_arguments 4 0 0]),
     (1665, [Entry 1 False, REDUCE mozjs_sym_array 4 0 0]),
     (1667, [Entry 1 True, REDUCE mozjs_sym_array 4 0 0]),
     (1669, [Entry 2 True, REDUCE mozjs_sym_object 2 0 0, REDUCE mozjs_sym_object_pattern 2 0 0]),
     (1672, [Entry 1 False, REDUCE mozjs_sym_array 3 0 0]),
     (1674, [Entry 1 True, REDUCE mozjs_sym_array 3 0 0]),
     (1676, [Entry 1 False, REDUCE mozjs_sym_jsx_self_closing_element 3 0 33]),
     (1678, [Entry 1 True, REDUCE mozjs_sym_jsx_self_closing_element 3 0 33]),
     (1680, [Entry 1 False, REDUCE mozjs_sym_class 3 0 38]),
     (1682, [Entry 1 True, REDUCE mozjs_sym_class 3 0 38]),
     (1684, [Entry 1 False, REDUCE mozjs_sym_jsx_self_closing_element 4 0 65]),
     (1686, [Entry 1 True, REDUCE mozjs_sym_jsx_self_closing_element 4 0 65]),
     (1688, [Entry 1 False, REDUCE mozjs_sym_function_expression 3 0 39]),
     (1690, [Entry 1 True, REDUCE mozjs_sym_function_expression 3 0 39]),
     (1692, [Entry 1 False, REDUCE mozjs_sym_new_expression 3 1 40])]"

definition mozjs_parse_actions_8 :: "(nat \<times> TSParseActionEntry list) list" where
  "mozjs_parse_actions_8 =
    [(1694, [Entry 1 True, REDUCE mozjs_sym_new_expression 3 1 40]),
     (1696, [Entry 1 False, REDUCE mozjs_sym_regex 3 0 41]),
     (1698, [Entry 1 True, REDUCE mozjs_sym_regex 3 0 41]),
     (1700, [Entry 1 False, SHIFT 652]),
     (1702, [Entry 1 False, REDUCE mozjs_sym_template_string 3 0 0]),
     (1704, [Entry 1 True, REDUCE mozjs_sym_template_string 3 0 0]),
     (1706, [Entry 1 False, REDUCE mozjs_sym_arrow_function 3 0 43]),
     (1708, [Entry 1 True, REDUCE mozjs_sym_arrow_function 3 0 43]),
     (1710, [Entry 1 False, REDUCE mozjs_sym_arguments 2 0 0]),
     (1712, [Entry 1 True, REDUCE mozjs_sym_arguments 2 0 0]),
     (1714, [Entry 1 False, REDUCE mozjs_sym_string 2 0 0]),
     (1716, [Entry 1 True, REDUCE mozjs_sym_string 2 0 0]),
     (1718, [Entry 1 False, REDUCE mozjs_sym_arrow_function 4 0 73]),
     (1720, [Entry 1 True, REDUCE mozjs_sym_arrow_function 4 0 73]),
     (1722, [Entry 1 False, REDUCE mozjs_sym_string 3 0 0]),
     (1724, [Entry 1 True, REDUCE mozjs_sym_string 3 0 0]),
     (1726, [Entry 1 False, REDUCE mozjs_sym_template_string 2 0 0]),
     (1728, [Entry 1 True, REDUCE mozjs_sym_template_string 2 0 0]),
     (1730, [Entry 1 False, REDUCE mozjs_sym_function_expression 4 0 74]),
     (1732, [Entry 1 True, REDUCE mozjs_sym_function_expression 4 0 74]),
     (1734, [Entry 1 False, REDUCE mozjs_sym_arrow_function 4 0 75]),
     (1736, [Entry 1 True, REDUCE mozjs_sym_arrow_function 4 0 75]),
     (1738, [Entry 1 False, REDUCE mozjs_sym_call_expression 3 0 49]),
     (1740, [Entry 1 True, REDUCE mozjs_sym_call_expression 3 0 49]),
     (1742, [Entry 1 False, REDUCE mozjs_sym_jsx_closing_element 2 0 0]),
     (1744, [Entry 1 True, REDUCE mozjs_sym_jsx_closing_element 2 0 0]),
     (1746, [Entry 1 False, REDUCE mozjs_sym_jsx_element 3 0 50]),
     (1748, [Entry 1 True, REDUCE mozjs_sym_jsx_element 3 0 50]),
     (1750, [Entry 1 False, REDUCE mozjs_sym_arrow_function 3 0 51]),
     (1752, [Entry 1 True, REDUCE mozjs_sym_arrow_function 3 0 51]),
     (1754, [Entry 1 False, REDUCE mozjs_sym_class 3 0 53]),
     (1756, [Entry 1 True, REDUCE mozjs_sym_class 3 0 53]),
     (1758, [Entry 1 False, REDUCE mozjs_sym_object 4 0 18]),
     (1760, [Entry 1 True, REDUCE mozjs_sym_object 4 0 18]),
     (1762, [Entry 1 False, REDUCE mozjs_sym_object 4 0 0]),
     (1764, [Entry 1 True, REDUCE mozjs_sym_object 4 0 0]),
     (1766, [Entry 1 False, REDUCE mozjs_sym_arrow_function 4 0 76]),
     (1768, [Entry 1 True, REDUCE mozjs_sym_arrow_function 4 0 76]),
     (1770, [Entry 1 False, REDUCE mozjs_sym_array 2 0 0]),
     (1772, [Entry 1 True, REDUCE mozjs_sym_array 2 0 0]),
     (1774, [Entry 2 True, REDUCE mozjs_sym_array 2 0 0, REDUCE mozjs_sym_array_pattern 2 0 0]),
     (1777, [Entry 1 False, REDUCE mozjs_sym_array_pattern 2 0 0]),
     (1779, [Entry 1 False, REDUCE mozjs_sym_generator_function 4 0 74]),
     (1781, [Entry 1 True, REDUCE mozjs_sym_generator_function 4 0 74]),
     (1783, [Entry 1 False, REDUCE mozjs_sym_regex 4 0 78]),
     (1785, [Entry 1 True, REDUCE mozjs_sym_regex 4 0 78]),
     (1787, [Entry 1 False, SHIFT 250]),
     (1789, [Entry 1 True, REDUCE mozjs_sym_binary_expression 3 0 44]),
     (1791, [Entry 1 False, SHIFT 249]),
     (1793, [Entry 1 False, SHIFT 254]),
     (1795, [Entry 1 True, SHIFT 254]),
     (1797, [Entry 1 False, REDUCE mozjs_sym_binary_expression 3 0 44]),
     (1799, [Entry 1 False, SHIFT 258]),
     (1801, [Entry 1 True, SHIFT 250]),
     (1803, [Entry 1 True, SHIFT 259]),
     (1805, [Entry 1 True, SHIFT 249]),
     (1807, [Entry 1 True, REDUCE mozjs_sym_yield_expression 2 0 0]),
     (1809, [Entry 1 True, SHIFT 252]),
     (1811, [Entry 1 True, SHIFT 253]),
     (1813, [Entry 1 False, SHIFT 255]),
     (1815, [Entry 1 True, SHIFT 256]),
     (1817, [Entry 1 False, SHIFT 257]),
     (1819, [Entry 1 False, SHIFT 260]),
     (1821, [Entry 1 True, SHIFT 260]),
     (1823, [Entry 1 True, SHIFT 261]),
     (1825, [Entry 1 True, SHIFT 298]),
     (1827, [Entry 1 True, SHIFT 125]),
     (1829, [Entry 1 True, SHIFT 211]),
     (1831, [Entry 1 True, SHIFT 1588]),
     (1833, [Entry 1 True, SHIFT 1282]),
     (1835, [Entry 1 True, REDUCE mozjs_sym_yield_expression 3 0 0]),
     (1837, [Entry 1 True, REDUCE mozjs_sym_assignment_expression 3 0 42]),
     (1839, [Entry 1 True, REDUCE mozjs_sym_augmented_assignment_expression 3 0 44]),
     (1841, [Entry 1 True, REDUCE mozjs_sym_assignment_expression 3 0 16]),
     (1843, [Entry 1 True, REDUCE mozjs_sym_ternary_expression 5 0 90]),
     (1845, [Entry 1 True, SHIFT 1436]),
     (1847, [Entry 1 True, REDUCE mozjs_aux_sym_sequence_expression_repeat1 2 0 0]),
     (1849, [Entry 1 True, SHIFT 774]),
     (1851, [Entry 1 False, SHIFT 299]),
     (1853, [Entry 1 False, SHIFT 297]),
     (1855, [Entry 1 True, SHIFT 300]),
     (1857, [Entry 1 True, SHIFT 301]),
     (1859, [Entry 1 False, SHIFT 302]),
     (1861, [Entry 1 True, SHIFT 302]),
     (1863, [Entry 1 False, SHIFT 303]),
     (1865, [Entry 1 True, SHIFT 304]),
     (1867, [Entry 1 False, SHIFT 305]),
     (1869, [Entry 1 False, SHIFT 306]),
     (1871, [Entry 1 True, SHIFT 299]),
     (1873, [Entry 1 True, SHIFT 307]),
     (1875, [Entry 1 True, SHIFT 297]),
     (1877, [Entry 1 False, SHIFT 308]),
     (1879, [Entry 1 True, SHIFT 308]),
     (1881, [Entry 1 True, SHIFT 309]),
     (1883, [Entry 1 True, SHIFT 356]),
     (1885, [Entry 1 False, SHIFT 800]),
     (1887, [Entry 1 False, SHIFT 232]),
     (1889, [Entry 1 False, SHIFT 231]),
     (1891, [Entry 1 True, SHIFT 234]),
     (1893, [Entry 1 True, SHIFT 235])]"

definition mozjs_parse_actions_9 :: "(nat \<times> TSParseActionEntry list) list" where
  "mozjs_parse_actions_9 =
    [(1895, [Entry 1 False, SHIFT 236]),
     (1897, [Entry 1 True, SHIFT 236]),
     (1899, [Entry 1 False, SHIFT 237]),
     (1901, [Entry 1 True, SHIFT 238]),
     (1903, [Entry 1 False, SHIFT 239]),
     (1905, [Entry 1 False, SHIFT 240]),
     (1907, [Entry 1 True, SHIFT 232]),
     (1909, [Entry 1 True, SHIFT 241]),
     (1911, [Entry 1 True, SHIFT 231]),
     (1913, [Entry 1 False, SHIFT 242]),
     (1915, [Entry 1 True, SHIFT 242]),
     (1917, [Entry 1 True, SHIFT 246]),
     (1919, [Entry 1 True, SHIFT 219]),
     (1921, [Entry 1 True, REDUCE mozjs_sym_array_pattern 2 0 0]),
     (1923, [Entry 1 True, REDUCE mozjs_sym_object_pattern 3 0 19]),
     (1925, [Entry 1 True, REDUCE mozjs_sym_object_pattern 2 0 0]),
     (1927, [Entry 2 False, REDUCE mozjs_sym_object 3 0 18, REDUCE mozjs_sym_object_pattern 3 0
       19]),
     (1930, [Entry 2 True, REDUCE mozjs_sym_primary_expression 1 0 0, REDUCE
       mozjs_sym__property_name 1 0 0]),
     (1933, [Entry 1 True, REDUCE mozjs_sym__property_name 1 0 0]),
     (1935, [Entry 2 False, REDUCE mozjs_sym_object 2 0 0, REDUCE mozjs_sym_object_pattern 2 0
       0]),
     (1938, [Entry 1 True, REDUCE mozjs_sym_spread_element 2 0 0]),
     (1940, [Entry 2 True, REDUCE mozjs_sym_object_assignment_pattern 3 0 42, REDUCE
       mozjs_sym_assignment_expression 3 0 42]),
     (1943, [Entry 1 True, REDUCE mozjs_sym_object_assignment_pattern 3 0 42]),
     (1945, [Entry 2 True, REDUCE mozjs_sym_object_assignment_pattern 3 0 56, REDUCE
       mozjs_sym_assignment_expression 3 0 42]),
     (1948, [Entry 1 True, REDUCE mozjs_sym_object_assignment_pattern 3 0 56]),
     (1950, [Entry 1 True, SHIFT 233]),
     (1952, [Entry 1 True, SHIFT 456]),
     (1954, [Entry 2 True, REDUCE mozjs_sym_array 3 0 0, REDUCE mozjs_sym_computed_property_name
       3 0 0]),
     (1957, [Entry 1 True, REDUCE mozjs_sym_computed_property_name 3 0 0]),
     (1959, [Entry 1 True, REDUCE mozjs_sym__initializer 2 0 59]),
     (1961, [Entry 2 False, REDUCE mozjs_sym__initializer 2 0 59, SHIFT 297]),
     (1964, [Entry 1 True, REDUCE mozjs_sym_assignment_pattern 3 0 42]),
     (1966, [Entry 1 True, SHIFT 451]),
     (1968, [Entry 2 True, REDUCE mozjs_sym_object_assignment_pattern 3 0 56, REDUCE
       mozjs_sym_assignment_expression 3 0 16]),
     (1971, [Entry 2 False, REDUCE mozjs_sym_array 2 0 0, REDUCE mozjs_sym_array_pattern 2 0 0]),
     (1974, [Entry 1 True, SHIFT 452]),
     (1976, [Entry 1 False, SHIFT 1219]),
     (1978, [Entry 1 True, SHIFT 989]),
     (1980, [Entry 1 True, SHIFT 688]),
     (1982, [Entry 1 True, SHIFT 117]),
     (1984, [Entry 1 False, SHIFT 1001]),
     (1986, [Entry 1 True, SHIFT 1428]),
     (1988, [Entry 1 False, SHIFT 1002]),
     (1990, [Entry 1 False, SHIFT 1014]),
     (1992, [Entry 1 True, SHIFT 251]),
     (1994, [Entry 1 True, SHIFT 36]),
     (1996, [Entry 1 True, SHIFT 37]),
     (1998, [Entry 1 True, SHIFT 510]),
     (2000, [Entry 1 True, SHIFT 513]),
     (2002, [Entry 1 True, SHIFT 515]),
     (2004, [Entry 1 True, SHIFT 516]),
     (2006, [Entry 1 True, SHIFT 518]),
     (2008, [Entry 1 True, SHIFT 519]),
     (2010, [Entry 1 True, SHIFT 520]),
     (2012, [Entry 1 True, SHIFT 521]),
     (2014, [Entry 1 True, SHIFT 39]),
     (2016, [Entry 1 True, SHIFT 768]),
     (2018, [Entry 1 True, SHIFT 138]),
     (2020, [Entry 1 True, SHIFT 522]),
     (2022, [Entry 1 True, SHIFT 523]),
     (2024, [Entry 1 True, REDUCE mozjs_aux_sym_array_repeat1 2 0 0]),
     (2026, [Entry 1 True, SHIFT 1387]),
     (2028, [Entry 1 True, SHIFT 803]),
     (2030, [Entry 1 True, SHIFT 530]),
     (2032, [Entry 1 True, SHIFT 1277]),
     (2034, [Entry 1 False, SHIFT 1225]),
     (2036, [Entry 1 True, SHIFT 610]),
     (2038, [Entry 1 False, SHIFT 999]),
     (2040, [Entry 1 False, SHIFT 1000]),
     (2042, [Entry 1 False, SHIFT 1011]),
     (2044, [Entry 1 True, SHIFT 509]),
     (2046, [Entry 1 True, SHIFT 613]),
     (2048, [Entry 1 True, SHIFT 592]),
     (2050, [Entry 1 True, SHIFT 497]),
     (2052, [Entry 1 True, SHIFT 1285]),
     (2054, [Entry 1 True, SHIFT 495]),
     (2056, [Entry 1 True, SHIFT 146]),
     (2058, [Entry 1 False, SHIFT 1209]),
     (2060, [Entry 1 True, SHIFT 655]),
     (2062, [Entry 1 False, SHIFT 1003]),
     (2064, [Entry 1 False, SHIFT 1004]),
     (2066, [Entry 1 False, SHIFT 1012]),
     (2068, [Entry 1 True, SHIFT 490]),
     (2070, [Entry 1 True, SHIFT 1109]),
     (2072, [Entry 1 False, SHIFT 1229]),
     (2074, [Entry 1 True, SHIFT 767]),
     (2076, [Entry 1 False, SHIFT 1005]),
     (2078, [Entry 1 False, SHIFT 1006]),
     (2080, [Entry 1 False, SHIFT 1015]),
     (2082, [Entry 1 True, SHIFT 395]),
     (2084, [Entry 1 False, SHIFT 1223]),
     (2086, [Entry 1 True, SHIFT 819]),
     (2088, [Entry 1 False, SHIFT 1007]),
     (2090, [Entry 1 False, SHIFT 1008]),
     (2092, [Entry 1 False, SHIFT 1016]),
     (2094, [Entry 1 True, SHIFT 824]),
     (2096, [Entry 1 False, SHIFT 1226]),
     (2098, [Entry 1 True, SHIFT 859]),
     (2100, [Entry 1 False, SHIFT 998]),
     (2102, [Entry 1 False, SHIFT 1009])]"

definition mozjs_parse_actions_10 :: "(nat \<times> TSParseActionEntry list) list" where
  "mozjs_parse_actions_10 =
    [(2104, [Entry 1 False, SHIFT 1010]),
     (2106, [Entry 1 True, SHIFT 545]),
     (2108, [Entry 1 True, SHIFT 544]),
     (2110, [Entry 1 True, SHIFT 54]),
     (2112, [Entry 1 True, SHIFT 57]),
     (2114, [Entry 1 True, SHIFT 58]),
     (2116, [Entry 1 True, SHIFT 60]),
     (2118, [Entry 1 True, SHIFT 11]),
     (2120, [Entry 1 True, SHIFT 524]),
     (2122, [Entry 1 True, SHIFT 507]),
     (2124, [Entry 1 True, SHIFT 33]),
     (2126, [Entry 1 True, SHIFT 144]),
     (2128, [Entry 1 True, SHIFT 508]),
     (2130, [Entry 1 True, SHIFT 148]),
     (2132, [Entry 1 True, SHIFT 150]),
     (2134, [Entry 1 True, SHIFT 143]),
     (2136, [Entry 1 True, SHIFT 505]),
     (2138, [Entry 1 False, SHIFT 340]),
     (2140, [Entry 1 False, SHIFT 339]),
     (2142, [Entry 1 True, SHIFT 341]),
     (2144, [Entry 1 True, SHIFT 342]),
     (2146, [Entry 1 False, SHIFT 343]),
     (2148, [Entry 1 True, SHIFT 343]),
     (2150, [Entry 1 False, SHIFT 344]),
     (2152, [Entry 1 True, SHIFT 345]),
     (2154, [Entry 1 False, SHIFT 346]),
     (2156, [Entry 1 False, SHIFT 347]),
     (2158, [Entry 1 True, SHIFT 340]),
     (2160, [Entry 1 True, SHIFT 348]),
     (2162, [Entry 1 True, SHIFT 339]),
     (2164, [Entry 1 False, SHIFT 349]),
     (2166, [Entry 1 True, SHIFT 349]),
     (2168, [Entry 1 True, SHIFT 350]),
     (2170, [Entry 1 True, SHIFT 354]),
     (2172, [Entry 1 False, SHIFT 279]),
     (2174, [Entry 1 False, SHIFT 278]),
     (2176, [Entry 1 False, SHIFT 282]),
     (2178, [Entry 1 True, SHIFT 282]),
     (2180, [Entry 1 False, SHIFT 283]),
     (2182, [Entry 1 False, SHIFT 286]),
     (2184, [Entry 1 True, SHIFT 279]),
     (2186, [Entry 1 True, SHIFT 287]),
     (2188, [Entry 1 True, SHIFT 278]),
     (2190, [Entry 1 False, SHIFT 288]),
     (2192, [Entry 1 True, SHIFT 288]),
     (2194, [Entry 1 True, SHIFT 284]),
     (2196, [Entry 1 True, SHIFT 280]),
     (2198, [Entry 1 True, SHIFT 281]),
     (2200, [Entry 1 False, SHIFT 285]),
     (2202, [Entry 1 True, SHIFT 289]),
     (2204, [Entry 1 True, SHIFT 353]),
     (2206, [Entry 1 True, SHIFT 437]),
     (2208, [Entry 1 True, REDUCE mozjs_sym_pair 3 0 57]),
     (2210, [Entry 1 True, SHIFT 447]),
     (2212, [Entry 1 True, SHIFT 446]),
     (2214, [Entry 1 False, SHIFT 320]),
     (2216, [Entry 1 False, SHIFT 319]),
     (2218, [Entry 1 True, SHIFT 321]),
     (2220, [Entry 1 True, SHIFT 322]),
     (2222, [Entry 1 False, SHIFT 323]),
     (2224, [Entry 1 True, SHIFT 323]),
     (2226, [Entry 1 False, SHIFT 324]),
     (2228, [Entry 1 True, SHIFT 325]),
     (2230, [Entry 1 False, SHIFT 326]),
     (2232, [Entry 1 False, SHIFT 327]),
     (2234, [Entry 1 True, SHIFT 320]),
     (2236, [Entry 1 True, SHIFT 328]),
     (2238, [Entry 1 True, SHIFT 319]),
     (2240, [Entry 1 False, SHIFT 329]),
     (2242, [Entry 1 True, SHIFT 329]),
     (2244, [Entry 1 True, SHIFT 330]),
     (2246, [Entry 1 True, SHIFT 333]),
     (2248, [Entry 1 True, SHIFT 291]),
     (2250, [Entry 1 True, SHIFT 225]),
     (2252, [Entry 2 False, REDUCE mozjs_sym__initializer 2 0 59, SHIFT 339]),
     (2255, [Entry 1 False, SHIFT 1268]),
     (2257, [Entry 2 True, REDUCE mozjs_aux_sym_object_repeat1 1 0 0, REDUCE
       mozjs_aux_sym_object_pattern_repeat1 1 0 0]),
     (2260, [Entry 1 False, SHIFT 1020]),
     (2262, [Entry 1 False, SHIFT 1018]),
     (2264, [Entry 1 False, SHIFT 1025]),
     (2266, [Entry 1 True, SHIFT 1349]),
     (2268, [Entry 1 True, SHIFT 352]),
     (2270, [Entry 1 True, SHIFT 332]),
     (2272, [Entry 1 True, SHIFT 312]),
     (2274, [Entry 1 True, SHIFT 1547]),
     (2276, [Entry 1 True, REDUCE mozjs_sym_class_heritage 2 0 0]),
     (2278, [Entry 1 True, SHIFT 266]),
     (2280, [Entry 1 False, SHIFT 1281]),
     (2282, [Entry 1 True, SHIFT 996]),
     (2284, [Entry 1 True, SHIFT 1609]),
     (2286, [Entry 1 True, SHIFT 268]),
     (2288, [Entry 1 False, SHIFT 1019]),
     (2290, [Entry 1 True, SHIFT 1477]),
     (2292, [Entry 1 False, SHIFT 1017]),
     (2294, [Entry 1 False, SHIFT 1026]),
     (2296, [Entry 1 False, SHIFT 1377]),
     (2298, [Entry 1 True, SHIFT 1129]),
     (2300, [Entry 1 True, SHIFT 394]),
     (2302, [Entry 1 True, SHIFT 991]),
     (2304, [Entry 1 True, SHIFT 311])]"

definition mozjs_parse_actions_11 :: "(nat \<times> TSParseActionEntry list) list" where
  "mozjs_parse_actions_11 =
    [(2306, [Entry 1 True, SHIFT 1392]),
     (2308, [Entry 1 True, SHIFT 1338]),
     (2310, [Entry 1 False, SHIFT 1029]),
     (2312, [Entry 1 True, SHIFT 1235]),
     (2314, [Entry 1 False, SHIFT 1013]),
     (2316, [Entry 1 True, SHIFT 1113]),
     (2318, [Entry 1 False, SHIFT 1041]),
     (2320, [Entry 1 True, SHIFT 629]),
     (2322, [Entry 1 False, SHIFT 1322]),
     (2324, [Entry 1 True, SHIFT 997]),
     (2326, [Entry 1 True, SHIFT 1388]),
     (2328, [Entry 1 True, SHIFT 1781]),
     (2330, [Entry 1 True, SHIFT 615]),
     (2332, [Entry 1 True, SHIFT 988]),
     (2334, [Entry 2 False, REDUCE mozjs_aux_sym_class_body_repeat1 2 0 71, SHIFT_REPEAT 1377]),
     (2337, [Entry 2 True, REDUCE mozjs_aux_sym_class_body_repeat1 2 0 71, SHIFT_REPEAT 1129]),
     (2340, [Entry 1 True, REDUCE mozjs_aux_sym_class_body_repeat1 2 0 71]),
     (2342, [Entry 2 True, REDUCE mozjs_aux_sym_class_body_repeat1 2 0 71, SHIFT_REPEAT 991]),
     (2345, [Entry 2 True, REDUCE mozjs_aux_sym_class_body_repeat1 2 0 71, SHIFT_REPEAT 311]),
     (2348, [Entry 2 True, REDUCE mozjs_aux_sym_class_body_repeat1 2 0 71, SHIFT_REPEAT 1392]),
     (2351, [Entry 2 True, REDUCE mozjs_aux_sym_class_body_repeat1 2 0 71, SHIFT_REPEAT 1338]),
     (2354, [Entry 2 False, REDUCE mozjs_aux_sym_class_body_repeat1 2 0 71, SHIFT_REPEAT 1029]),
     (2357, [Entry 2 True, REDUCE mozjs_aux_sym_class_body_repeat1 2 0 71, SHIFT_REPEAT 1235]),
     (2360, [Entry 2 True, REDUCE mozjs_aux_sym_class_body_repeat1 2 0 71, SHIFT_REPEAT 1460]),
     (2363, [Entry 2 False, REDUCE mozjs_aux_sym_class_body_repeat1 2 0 71, SHIFT_REPEAT 1013]),
     (2366, [Entry 2 True, REDUCE mozjs_aux_sym_class_body_repeat1 2 0 71, SHIFT_REPEAT 1113]),
     (2369, [Entry 2 False, REDUCE mozjs_aux_sym_class_body_repeat1 2 0 71, SHIFT_REPEAT 1041]),
     (2372, [Entry 1 True, SHIFT 91]),
     (2374, [Entry 1 True, SHIFT 993]),
     (2376, [Entry 1 True, SHIFT 89]),
     (2378, [Entry 1 True, SHIFT 393]),
     (2380, [Entry 1 True, SHIFT 987]),
     (2382, [Entry 1 False, SHIFT 1274]),
     (2384, [Entry 1 True, SHIFT 1233]),
     (2386, [Entry 1 False, SHIFT 1352]),
     (2388, [Entry 1 True, REDUCE mozjs_aux_sym_object_repeat1 1 0 0]),
     (2390, [Entry 1 False, SHIFT 1028]),
     (2392, [Entry 1 False, SHIFT 1031]),
     (2394, [Entry 1 False, SHIFT 1038]),
     (2396, [Entry 1 False, SHIFT 1351]),
     (2398, [Entry 1 True, REDUCE mozjs_aux_sym_object_pattern_repeat1 1 0 0]),
     (2400, [Entry 1 True, SHIFT 1138]),
     (2402, [Entry 1 True, SHIFT 858]),
     (2404, [Entry 1 True, REDUCE mozjs_sym__property_name 1 0 4]),
     (2406, [Entry 1 True, SHIFT 220]),
     (2408, [Entry 1 True, SHIFT 766]),
     (2410, [Entry 1 True, SHIFT 817]),
     (2412, [Entry 1 True, SHIFT 1128]),
     (2414, [Entry 1 True, SHIFT 27]),
     (2416, [Entry 1 False, SHIFT 1032]),
     (2418, [Entry 1 True, SHIFT 1245]),
     (2420, [Entry 1 False, SHIFT 1036]),
     (2422, [Entry 2 True, REDUCE mozjs_sym__property_name 1 0 4, SHIFT 1512]),
     (2425, [Entry 1 True, SHIFT 1752]),
     (2427, [Entry 2 True, REDUCE mozjs_aux_sym_object_repeat1 2 0 18, REDUCE
       mozjs_aux_sym_object_pattern_repeat1 2 0 19]),
     (2430, [Entry 1 False, SHIFT 1039]),
     (2432, [Entry 1 True, SHIFT 1126]),
     (2434, [Entry 1 False, SHIFT 1291]),
     (2436, [Entry 1 False, SHIFT 1082]),
     (2438, [Entry 1 True, SHIFT 1673]),
     (2440, [Entry 1 False, SHIFT 1083]),
     (2442, [Entry 1 True, SHIFT 1103]),
     (2444, [Entry 1 False, SHIFT 1104]),
     (2446, [Entry 1 False, SHIFT 1105]),
     (2448, [Entry 1 True, SHIFT 1134]),
     (2450, [Entry 1 True, SHIFT 1584]),
     (2452, [Entry 1 False, SHIFT 1117]),
     (2454, [Entry 1 False, SHIFT 1118]),
     (2456, [Entry 1 True, SHIFT 1137]),
     (2458, [Entry 1 False, SHIFT 1027]),
     (2460, [Entry 1 True, SHIFT 1230]),
     (2462, [Entry 1 False, SHIFT 1040]),
     (2464, [Entry 1 False, SHIFT 1037]),
     (2466, [Entry 1 True, SHIFT 1139]),
     (2468, [Entry 1 True, SHIFT 1600]),
     (2470, [Entry 1 False, SHIFT 1121]),
     (2472, [Entry 1 False, SHIFT 1122]),
     (2474, [Entry 1 True, REDUCE mozjs_aux_sym_object_repeat1 2 0 18]),
     (2476, [Entry 1 True, SHIFT 1557]),
     (2478, [Entry 1 False, SHIFT 1114]),
     (2480, [Entry 1 True, SHIFT 1127]),
     (2482, [Entry 1 False, SHIFT 1022]),
     (2484, [Entry 1 True, SHIFT 1246]),
     (2486, [Entry 1 False, SHIFT 1024]),
     (2488, [Entry 1 True, SHIFT 1115]),
     (2490, [Entry 1 False, SHIFT 1035]),
     (2492, [Entry 1 False, SHIFT 1033]),
     (2494, [Entry 1 True, SHIFT 1132]),
     (2496, [Entry 1 True, SHIFT 1582]),
     (2498, [Entry 1 False, SHIFT 1116]),
     (2500, [Entry 1 True, SHIFT 1587]),
     (2502, [Entry 1 False, REDUCE mozjs_sym_decorator 2 0 0]),
     (2504, [Entry 1 True, REDUCE mozjs_sym_decorator 2 0 0]),
     (2506, [Entry 1 True, SHIFT 128]),
     (2508, [Entry 1 False, SHIFT 1792]),
     (2510, [Entry 1 True, SHIFT 1586]),
     (2512, [Entry 1 True, SHIFT 1602]),
     (2514, [Entry 1 True, SHIFT 103]),
     (2516, [Entry 1 True, SHIFT 1601]),
     (2518, [Entry 1 False, REDUCE mozjs_sym_method_definition 5 0 94])]"

definition mozjs_parse_actions_12 :: "(nat \<times> TSParseActionEntry list) list" where
  "mozjs_parse_actions_12 =
    [(2520, [Entry 1 True, REDUCE mozjs_sym_method_definition 5 0 94]),
     (2522, [Entry 1 False, REDUCE mozjs_sym_method_definition 6 0 100]),
     (2524, [Entry 1 True, REDUCE mozjs_sym_method_definition 6 0 100]),
     (2526, [Entry 1 False, REDUCE mozjs_sym_method_definition 4 0 84]),
     (2528, [Entry 1 True, REDUCE mozjs_sym_method_definition 4 0 84]),
     (2530, [Entry 1 False, REDUCE mozjs_sym_method_definition 6 0 99]),
     (2532, [Entry 1 True, REDUCE mozjs_sym_method_definition 6 0 99]),
     (2534, [Entry 1 False, REDUCE mozjs_sym_method_definition 3 0 58]),
     (2536, [Entry 1 True, REDUCE mozjs_sym_method_definition 3 0 58]),
     (2538, [Entry 1 False, REDUCE mozjs_aux_sym_export_statement_repeat1 2 0 13]),
     (2540, [Entry 1 True, REDUCE mozjs_aux_sym_export_statement_repeat1 2 0 13]),
     (2542, [Entry 2 True, REDUCE mozjs_aux_sym_export_statement_repeat1 2 0 13, SHIFT_REPEAT
       1460]),
     (2545, [Entry 1 True, SHIFT 1085]),
     (2547, [Entry 1 False, REDUCE mozjs_sym_method_definition 4 0 77]),
     (2549, [Entry 1 True, REDUCE mozjs_sym_method_definition 4 0 77]),
     (2551, [Entry 1 True, SHIFT 1077]),
     (2553, [Entry 1 False, REDUCE mozjs_sym_method_definition 5 0 89]),
     (2555, [Entry 1 True, REDUCE mozjs_sym_method_definition 5 0 89]),
     (2557, [Entry 1 True, SHIFT 102]),
     (2559, [Entry 1 False, REDUCE mozjs_sym_decorator_member_expression 3 0 45]),
     (2561, [Entry 1 True, REDUCE mozjs_sym_decorator_member_expression 3 0 45]),
     (2563, [Entry 1 False, REDUCE mozjs_sym_method_definition 7 0 108]),
     (2565, [Entry 1 True, REDUCE mozjs_sym_method_definition 7 0 108]),
     (2567, [Entry 1 True, SHIFT 1130]),
     (2569, [Entry 1 True, SHIFT 1566]),
     (2571, [Entry 1 False, SHIFT 1092]),
     (2573, [Entry 1 False, SHIFT 1093]),
     (2575, [Entry 1 True, SHIFT 1141]),
     (2577, [Entry 1 True, SHIFT 1628]),
     (2579, [Entry 1 False, SHIFT 1098]),
     (2581, [Entry 1 False, REDUCE mozjs_aux_sym_class_body_repeat1 2 0 35]),
     (2583, [Entry 1 True, REDUCE mozjs_aux_sym_class_body_repeat1 2 0 35]),
     (2585, [Entry 1 True, SHIFT 1142]),
     (2587, [Entry 1 True, SHIFT 1604]),
     (2589, [Entry 1 False, SHIFT 1091]),
     (2591, [Entry 1 False, SHIFT 1123]),
     (2593, [Entry 1 True, SHIFT 1133]),
     (2595, [Entry 1 True, SHIFT 1652]),
     (2597, [Entry 1 False, SHIFT 1099]),
     (2599, [Entry 1 False, SHIFT 1100]),
     (2601, [Entry 1 True, SHIFT 1136]),
     (2603, [Entry 1 False, SHIFT 1076]),
     (2605, [Entry 1 True, SHIFT 1656]),
     (2607, [Entry 1 False, SHIFT 1101]),
     (2609, [Entry 1 False, SHIFT 1102]),
     (2611, [Entry 1 False, REDUCE mozjs_sym_class_static_block 3 0 38]),
     (2613, [Entry 1 True, REDUCE mozjs_sym_class_static_block 3 0 38]),
     (2615, [Entry 1 True, SHIFT 1135]),
     (2617, [Entry 1 True, SHIFT 1573]),
     (2619, [Entry 1 False, SHIFT 1094]),
     (2621, [Entry 1 False, SHIFT 1095]),
     (2623, [Entry 1 False, REDUCE mozjs_sym_class_static_block 2 0 7]),
     (2625, [Entry 1 True, REDUCE mozjs_sym_class_static_block 2 0 7]),
     (2627, [Entry 1 False, REDUCE mozjs_aux_sym_class_body_repeat1 1 0 35]),
     (2629, [Entry 1 True, REDUCE mozjs_aux_sym_class_body_repeat1 1 0 35]),
     (2631, [Entry 2 True, REDUCE mozjs_aux_sym_class_body_repeat1 1 0 35, SHIFT_REPEAT 1080]),
     (2634, [Entry 1 True, SHIFT 168]),
     (2636, [Entry 1 True, SHIFT 1615]),
     (2638, [Entry 1 True, SHIFT 1709]),
     (2640, [Entry 1 True, SHIFT 1710]),
     (2642, [Entry 1 True, SHIFT 1730]),
     (2644, [Entry 1 True, SHIFT 1732]),
     (2646, [Entry 1 True, SHIFT 1550]),
     (2648, [Entry 1 True, SHIFT 1555]),
     (2650, [Entry 1 True, SHIFT 1556]),
     (2652, [Entry 1 True, SHIFT 1567]),
     (2654, [Entry 1 True, SHIFT 1568]),
     (2656, [Entry 1 True, SHIFT 1131]),
     (2658, [Entry 1 False, SHIFT 1086]),
     (2660, [Entry 1 True, SHIFT 1677]),
     (2662, [Entry 1 False, SHIFT 1106]),
     (2664, [Entry 1 False, SHIFT 1124]),
     (2666, [Entry 1 True, SHIFT 1679]),
     (2668, [Entry 1 True, SHIFT 1680]),
     (2670, [Entry 1 True, SHIFT 1574]),
     (2672, [Entry 1 False, REDUCE mozjs_sym_decorator_call_expression 2 0 10]),
     (2674, [Entry 1 True, REDUCE mozjs_sym_decorator_call_expression 2 0 10]),
     (2676, [Entry 1 False, REDUCE mozjs_aux_sym_export_statement_repeat1 1 0 2]),
     (2678, [Entry 1 True, REDUCE mozjs_aux_sym_export_statement_repeat1 1 0 2]),
     (2680, [Entry 1 False, SHIFT 1078]),
     (2682, [Entry 1 True, SHIFT 1125]),
     (2684, [Entry 1 False, SHIFT 1081]),
     (2686, [Entry 1 True, SHIFT 1585]),
     (2688, [Entry 1 False, SHIFT 1119]),
     (2690, [Entry 1 False, SHIFT 1120]),
     (2692, [Entry 1 True, SHIFT 1595]),
     (2694, [Entry 1 True, SHIFT 1597]),
     (2696, [Entry 1 True, SHIFT 1598]),
     (2698, [Entry 1 True, SHIFT 1605]),
     (2700, [Entry 1 True, SHIFT 1606]),
     (2702, [Entry 1 True, SHIFT 1612]),
     (2704, [Entry 1 True, SHIFT 1613]),
     (2706, [Entry 1 True, SHIFT 1616]),
     (2708, [Entry 1 True, SHIFT 1575]),
     (2710, [Entry 1 True, SHIFT 1603]),
     (2712, [Entry 1 True, SHIFT 1649]),
     (2714, [Entry 1 True, SHIFT 1583]),
     (2716, [Entry 1 True, SHIFT 1708]),
     (2718, [Entry 1 True, SHIFT 1570]),
     (2720, [Entry 1 True, SHIFT 1554])]"

definition mozjs_parse_actions_13 :: "(nat \<times> TSParseActionEntry list) list" where
  "mozjs_parse_actions_13 =
    [(2722, [Entry 1 True, SHIFT 1596]),
     (2724, [Entry 1 True, SHIFT 1729]),
     (2726, [Entry 1 True, SHIFT 1561]),
     (2728, [Entry 1 True, SHIFT 1599]),
     (2730, [Entry 1 True, SHIFT 1611]),
     (2732, [Entry 1 True, SHIFT 1614]),
     (2734, [Entry 1 True, SHIFT 310]),
     (2736, [Entry 1 True, SHIFT 331]),
     (2738, [Entry 1 True, SHIFT 262]),
     (2740, [Entry 1 True, SHIFT 263]),
     (2742, [Entry 1 True, SHIFT 290]),
     (2744, [Entry 1 True, SHIFT 351]),
     (2746, [Entry 1 True, SHIFT 1511]),
     (2748, [Entry 1 True, SHIFT 1833]),
     (2750, [Entry 1 True, SHIFT 1181]),
     (2752, [Entry 1 True, REDUCE mozjs_sym_import 1 0 0]),
     (2754, [Entry 1 True, SHIFT 1867]),
     (2756, [Entry 1 False, SHIFT 1218]),
     (2758, [Entry 1 True, SHIFT 133]),
     (2760, [Entry 1 True, SHIFT 1731]),
     (2762, [Entry 1 True, SHIFT 1315]),
     (2764, [Entry 1 True, SHIFT 1218]),
     (2766, [Entry 1 True, SHIFT 1863]),
     (2768, [Entry 1 True, SHIFT 772]),
     (2770, [Entry 1 True, SHIFT 1297]),
     (2772, [Entry 1 True, SHIFT 132]),
     (2774, [Entry 1 True, SHIFT 1154]),
     (2776, [Entry 1 False, SHIFT 1324]),
     (2778, [Entry 1 True, SHIFT 1312]),
     (2780, [Entry 1 True, SHIFT 1167]),
     (2782, [Entry 1 True, SHIFT 1270]),
     (2784, [Entry 1 True, SHIFT 614]),
     (2786, [Entry 1 True, SHIFT 1161]),
     (2788, [Entry 1 True, SHIFT 1273]),
     (2790, [Entry 1 True, SHIFT 1284]),
     (2792, [Entry 1 True, SHIFT 1157]),
     (2794, [Entry 1 True, SHIFT 1311]),
     (2796, [Entry 1 True, SHIFT 1153]),
     (2798, [Entry 2 True, REDUCE mozjs_aux_sym_jsx_element_repeat1 2 0 0, SHIFT_REPEAT 132]),
     (2801, [Entry 2 True, REDUCE mozjs_aux_sym_jsx_element_repeat1 2 0 0, SHIFT_REPEAT 1167]),
     (2804, [Entry 2 False, REDUCE mozjs_aux_sym_jsx_element_repeat1 2 0 0, SHIFT_REPEAT 1324]),
     (2807, [Entry 1 True, REDUCE mozjs_aux_sym_jsx_element_repeat1 2 0 0]),
     (2809, [Entry 1 True, SHIFT 1260]),
     (2811, [Entry 1 True, SHIFT 702]),
     (2813, [Entry 2 False, REDUCE mozjs_aux_sym_jsx_opening_element_repeat1 2 0 66, SHIFT_REPEAT
       1218]),
     (2816, [Entry 2 True, REDUCE mozjs_aux_sym_jsx_opening_element_repeat1 2 0 66, SHIFT_REPEAT
       133]),
     (2819, [Entry 1 True, REDUCE mozjs_aux_sym_jsx_opening_element_repeat1 2 0 66]),
     (2821, [Entry 2 True, REDUCE mozjs_aux_sym_jsx_opening_element_repeat1 2 0 66, SHIFT_REPEAT
       1218]),
     (2824, [Entry 1 True, SHIFT 1300]),
     (2826, [Entry 1 True, SHIFT 1262]),
     (2828, [Entry 1 True, SHIFT 1301]),
     (2830, [Entry 1 True, SHIFT 1263]),
     (2832, [Entry 1 True, SHIFT 1302]),
     (2834, [Entry 1 True, SHIFT 1267]),
     (2836, [Entry 1 True, SHIFT 1303]),
     (2838, [Entry 1 True, SHIFT 748]),
     (2840, [Entry 1 True, SHIFT 619]),
     (2842, [Entry 1 True, SHIFT 1305]),
     (2844, [Entry 1 True, SHIFT 1358]),
     (2846, [Entry 1 True, SHIFT 1359]),
     (2848, [Entry 1 False, SHIFT 1487]),
     (2850, [Entry 1 False, SHIFT 1759]),
     (2852, [Entry 1 True, SHIFT 1873]),
     (2854, [Entry 1 True, SHIFT 1874]),
     (2856, [Entry 1 True, SHIFT 734]),
     (2858, [Entry 1 False, SHIFT 1493]),
     (2860, [Entry 1 True, SHIFT 1868]),
     (2862, [Entry 1 True, SHIFT 1445]),
     (2864, [Entry 1 True, SHIFT 620]),
     (2866, [Entry 1 True, SHIFT 626]),
     (2868, [Entry 1 True, SHIFT 627]),
     (2870, [Entry 1 True, SHIFT 1316]),
     (2872, [Entry 1 True, SHIFT 1317]),
     (2874, [Entry 1 True, SHIFT 1318]),
     (2876, [Entry 1 True, SHIFT 1319]),
     (2878, [Entry 1 True, SHIFT 729]),
     (2880, [Entry 1 True, SHIFT 1814]),
     (2882, [Entry 1 True, SHIFT 1489]),
     (2884, [Entry 1 False, SHIFT 1221]),
     (2886, [Entry 1 True, SHIFT 1869]),
     (2888, [Entry 1 False, SHIFT 1215]),
     (2890, [Entry 1 False, SHIFT 1214]),
     (2892, [Entry 1 True, SHIFT 1454]),
     (2894, [Entry 1 False, SHIFT 1345]),
     (2896, [Entry 1 False, SHIFT 1344]),
     (2898, [Entry 1 True, SHIFT 116]),
     (2900, [Entry 1 True, REDUCE mozjs_sym_sequence_expression 2 0 0]),
     (2902, [Entry 1 False, SHIFT 1494]),
     (2904, [Entry 1 False, SHIFT 1474]),
     (2906, [Entry 1 False, SHIFT 1473]),
     (2908, [Entry 1 True, REDUCE mozjs_sym_variable_declarator 1 0 6]),
     (2910, [Entry 1 True, SHIFT 177]),
     (2912, [Entry 2 True, REDUCE mozjs_sym_variable_declarator 1 0 6, SHIFT 1640]),
     (2915, [Entry 1 True, REDUCE mozjs_sym_object_pattern 3 0 0]),
     (2917, [Entry 1 True, SHIFT 173]),
     (2919, [Entry 1 True, SHIFT 271]),
     (2921, [Entry 1 True, REDUCE mozjs_sym_array_pattern 3 0 0]),
     (2923, [Entry 1 True, REDUCE mozjs_sym_object_pattern 4 0 0]),
     (2925, [Entry 1 False, REDUCE mozjs_sym_jsx_attribute 1 0 4]),
     (2927, [Entry 1 True, REDUCE mozjs_sym_jsx_attribute 1 0 4])]"

definition mozjs_parse_actions_14 :: "(nat \<times> TSParseActionEntry list) list" where
  "mozjs_parse_actions_14 =
    [(2929, [Entry 1 True, SHIFT 1179]),
     (2931, [Entry 2 True, REDUCE mozjs_aux_sym_sequence_expression_repeat1 2 0 0, SHIFT_REPEAT
       251]),
     (2934, [Entry 1 True, REDUCE mozjs_sym_object_pattern 4 0 19]),
     (2936, [Entry 1 True, REDUCE mozjs_sym_array_pattern 4 0 0]),
     (2938, [Entry 1 True, SHIFT 127]),
     (2940, [Entry 1 True, REDUCE mozjs_sym_field_definition 3 0 86]),
     (2942, [Entry 1 False, REDUCE mozjs_sym_jsx_attribute 1 0 0]),
     (2944, [Entry 1 True, REDUCE mozjs_sym_jsx_attribute 1 0 0]),
     (2946, [Entry 1 True, SHIFT 1194]),
     (2948, [Entry 1 True, SHIFT 1236]),
     (2950, [Entry 1 True, SHIFT 635]),
     (2952, [Entry 1 True, SHIFT 212]),
     (2954, [Entry 1 True, SHIFT 1850]),
     (2956, [Entry 1 True, SHIFT 436]),
     (2958, [Entry 1 True, SHIFT 214]),
     (2960, [Entry 1 True, REDUCE mozjs_sym_field_definition 1 0 36]),
     (2962, [Entry 1 True, SHIFT 1237]),
     (2964, [Entry 1 True, SHIFT 624]),
     (2966, [Entry 2 True, REDUCE mozjs_aux_sym_template_string_repeat1 2 0 0, SHIFT_REPEAT
       1237]),
     (2969, [Entry 1 True, REDUCE mozjs_aux_sym_template_string_repeat1 2 0 0]),
     (2971, [Entry 2 True, REDUCE mozjs_aux_sym_template_string_repeat1 2 0 0, SHIFT_REPEAT 212]),
     (2974, [Entry 1 True, SHIFT 1842]),
     (2976, [Entry 1 False, REDUCE mozjs_sym_jsx_namespace_name 3 0 0]),
     (2978, [Entry 1 True, REDUCE mozjs_sym_jsx_namespace_name 3 0 0]),
     (2980, [Entry 1 False, REDUCE mozjs_sym_nested_identifier 3 0 45]),
     (2982, [Entry 1 True, REDUCE mozjs_sym_nested_identifier 3 0 45]),
     (2984, [Entry 1 True, SHIFT 481]),
     (2986, [Entry 1 True, SHIFT 711]),
     (2988, [Entry 1 True, REDUCE mozjs_sym_field_definition 2 0 67]),
     (2990, [Entry 1 True, REDUCE mozjs_sym_field_definition 2 0 69]),
     (2992, [Entry 1 False, SHIFT 1541]),
     (2994, [Entry 2 True, REDUCE mozjs_aux_sym_switch_body_repeat1 2 0 0, SHIFT_REPEAT 1850]),
     (2997, [Entry 1 True, REDUCE mozjs_aux_sym_switch_body_repeat1 2 0 0]),
     (2999, [Entry 2 True, REDUCE mozjs_aux_sym_switch_body_repeat1 2 0 0, SHIFT_REPEAT 214]),
     (3002, [Entry 1 True, SHIFT 1244]),
     (3004, [Entry 1 True, SHIFT 792]),
     (3006, [Entry 1 False, SHIFT 1818]),
     (3008, [Entry 1 False, SHIFT 1397]),
     (3010, [Entry 1 True, SHIFT 992]),
     (3012, [Entry 1 False, SHIFT 229]),
     (3014, [Entry 1 False, SHIFT 1390]),
     (3016, [Entry 1 True, SHIFT 990]),
     (3018, [Entry 1 True, REDUCE mozjs_sym_jsx_opening_element 4 (-1) 65]),
     (3020, [Entry 1 False, REDUCE mozjs_sym_jsx_opening_element 4 (-1) 65]),
     (3022, [Entry 1 False, SHIFT 1356]),
     (3024, [Entry 1 False, REDUCE mozjs_sym__jsx_string 2 0 0]),
     (3026, [Entry 1 True, REDUCE mozjs_sym__jsx_string 2 0 0]),
     (3028, [Entry 1 False, SHIFT 1365]),
     (3030, [Entry 1 False, REDUCE mozjs_sym__jsx_string 3 0 0]),
     (3032, [Entry 1 True, REDUCE mozjs_sym__jsx_string 3 0 0]),
     (3034, [Entry 1 False, SHIFT 1440]),
     (3036, [Entry 1 True, SHIFT 1298]),
     (3038, [Entry 1 True, SHIFT 1707]),
     (3040, [Entry 1 True, REDUCE mozjs_sym_jsx_expression 2 0 0]),
     (3042, [Entry 1 False, REDUCE mozjs_sym_jsx_expression 2 0 0]),
     (3044, [Entry 1 False, SHIFT 1446]),
     (3046, [Entry 1 True, SHIFT 1313]),
     (3048, [Entry 1 True, SHIFT 1519]),
     (3050, [Entry 1 True, SHIFT 1257]),
     (3052, [Entry 1 False, SHIFT 1155]),
     (3054, [Entry 1 True, SHIFT 1292]),
     (3056, [Entry 1 True, SHIFT 1163]),
     (3058, [Entry 1 False, SHIFT 1325]),
     (3060, [Entry 1 True, REDUCE mozjs_sym_jsx_expression 3 0 0]),
     (3062, [Entry 1 False, REDUCE mozjs_sym_jsx_expression 3 0 0]),
     (3064, [Entry 1 True, SHIFT 1045]),
     (3066, [Entry 1 True, SHIFT 1291]),
     (3068, [Entry 1 False, SHIFT 1386]),
     (3070, [Entry 1 True, SHIFT 535]),
     (3072, [Entry 1 True, SHIFT 171]),
     (3074, [Entry 1 True, SHIFT 526]),
     (3076, [Entry 1 False, SHIFT 1439]),
     (3078, [Entry 1 True, SHIFT 794]),
     (3080, [Entry 1 True, SHIFT 1676]),
     (3082, [Entry 1 False, SHIFT 1150]),
     (3084, [Entry 1 True, SHIFT 1164]),
     (3086, [Entry 2 True, REDUCE mozjs_sym_pattern 1 (-1) 0, SHIFT 248]),
     (3089, [Entry 1 True, REDUCE mozjs_sym_variable_declarator 2 0 23]),
     (3091, [Entry 1 True, SHIFT 166]),
     (3093, [Entry 1 True, SHIFT 183]),
     (3095, [Entry 1 True, REDUCE mozjs_sym_variable_declarator 2 0 24]),
     (3097, [Entry 1 True, SHIFT 158]),
     (3099, [Entry 1 True, SHIFT 159]),
     (3101, [Entry 1 False, SHIFT 1402]),
     (3103, [Entry 1 False, SHIFT 1380]),
     (3105, [Entry 1 True, REDUCE mozjs_sym_jsx_opening_element 2 (-1) 0]),
     (3107, [Entry 1 False, REDUCE mozjs_sym_jsx_opening_element 2 (-1) 0]),
     (3109, [Entry 1 False, REDUCE mozjs_sym_jsx_attribute 3 0 4]),
     (3111, [Entry 1 True, REDUCE mozjs_sym_jsx_attribute 3 0 4]),
     (3113, [Entry 1 False, REDUCE mozjs_sym_jsx_attribute 3 0 0]),
     (3115, [Entry 1 True, REDUCE mozjs_sym_jsx_attribute 3 0 0]),
     (3117, [Entry 1 False, SHIFT 1159]),
     (3119, [Entry 1 True, SHIFT 1168]),
     (3121, [Entry 1 True, SHIFT 493]),
     (3123, [Entry 1 True, SHIFT 187]),
     (3125, [Entry 1 True, SHIFT 494]),
     (3127, [Entry 1 True, SHIFT 1063]),
     (3129, [Entry 1 True, SHIFT 1280]),
     (3131, [Entry 2 True, REDUCE mozjs_sym_pattern 1 (-1) 0, SHIFT 318]),
     (3134, [Entry 1 True, SHIFT 318])]"

definition mozjs_parse_actions_15 :: "(nat \<times> TSParseActionEntry list) list" where
  "mozjs_parse_actions_15 =
    [(3136, [Entry 1 False, SHIFT 1467]),
     (3138, [Entry 1 True, SHIFT 641]),
     (3140, [Entry 1 True, SHIFT 1610]),
     (3142, [Entry 1 True, REDUCE mozjs_sym_jsx_opening_element 3 (-1) 33]),
     (3144, [Entry 1 False, REDUCE mozjs_sym_jsx_opening_element 3 (-1) 33]),
     (3146, [Entry 1 False, REDUCE mozjs_aux_sym_jsx_opening_element_repeat1 1 0 34]),
     (3148, [Entry 1 True, REDUCE mozjs_aux_sym_jsx_opening_element_repeat1 1 0 34]),
     (3150, [Entry 1 True, SHIFT 1399]),
     (3152, [Entry 1 False, SHIFT 1151]),
     (3154, [Entry 1 True, SHIFT 1165]),
     (3156, [Entry 1 True, SHIFT 229]),
     (3158, [Entry 1 True, SHIFT 1589]),
     (3160, [Entry 1 True, SHIFT 1465]),
     (3162, [Entry 1 False, SHIFT 1266]),
     (3164, [Entry 1 True, SHIFT 1404]),
     (3166, [Entry 1 True, SHIFT 1405]),
     (3168, [Entry 1 True, SHIFT 1261]),
     (3170, [Entry 1 False, SHIFT 694]),
     (3172, [Entry 1 True, SHIFT 1363]),
     (3174, [Entry 1 True, SHIFT 1617]),
     (3176, [Entry 1 True, SHIFT 1196]),
     (3178, [Entry 1 True, SHIFT 428]),
     (3180, [Entry 1 True, SHIFT 994]),
     (3182, [Entry 1 True, SHIFT 433]),
     (3184, [Entry 1 True, SHIFT 429]),
     (3186, [Entry 1 False, SHIFT 1323]),
     (3188, [Entry 1 True, SHIFT 1329]),
     (3190, [Entry 1 True, SHIFT 430]),
     (3192, [Entry 1 True, SHIFT 1634]),
     (3194, [Entry 1 False, SHIFT 630]),
     (3196, [Entry 1 True, SHIFT 1360]),
     (3198, [Entry 1 True, SHIFT 1594]),
     (3200, [Entry 1 True, SHIFT 1459]),
     (3202, [Entry 1 True, SHIFT 1516]),
     (3204, [Entry 1 True, SHIFT 1429]),
     (3206, [Entry 1 True, SHIFT 265]),
     (3208, [Entry 1 True, SHIFT 1361]),
     (3210, [Entry 1 False, SHIFT 1357]),
     (3212, [Entry 1 False, SHIFT 1269]),
     (3214, [Entry 1 True, SHIFT 1357]),
     (3216, [Entry 1 False, SHIFT 1368]),
     (3218, [Entry 1 True, SHIFT 1368]),
     (3220, [Entry 1 True, SHIFT 470]),
     (3222, [Entry 1 True, REDUCE mozjs_aux_sym_object_pattern_repeat1 2 0 19]),
     (3224, [Entry 1 True, SHIFT 292]),
     (3226, [Entry 1 True, SHIFT 1216]),
     (3228, [Entry 1 True, SHIFT 1865]),
     (3230, [Entry 2 False, REDUCE mozjs_aux_sym__jsx_string_repeat1 2 0 0, SHIFT_REPEAT 1357]),
     (3233, [Entry 1 False, REDUCE mozjs_aux_sym__jsx_string_repeat1 2 0 0]),
     (3235, [Entry 2 True, REDUCE mozjs_aux_sym__jsx_string_repeat1 2 0 0, SHIFT_REPEAT 1357]),
     (3238, [Entry 1 False, SHIFT 1347]),
     (3240, [Entry 1 False, SHIFT 1264]),
     (3242, [Entry 1 True, SHIFT 1347]),
     (3244, [Entry 1 False, SHIFT 1348]),
     (3246, [Entry 1 True, SHIFT 1348]),
     (3248, [Entry 1 False, SHIFT 633]),
     (3250, [Entry 1 True, SHIFT 466]),
     (3252, [Entry 1 False, SHIFT 687]),
     (3254, [Entry 2 True, REDUCE mozjs_aux_sym_sequence_expression_repeat1 2 0 0, SHIFT_REPEAT
       233]),
     (3257, [Entry 1 True, SHIFT 680]),
     (3259, [Entry 2 False, REDUCE mozjs_aux_sym__jsx_string_repeat2 2 0 0, SHIFT_REPEAT 1368]),
     (3262, [Entry 1 False, REDUCE mozjs_aux_sym__jsx_string_repeat2 2 0 0]),
     (3264, [Entry 2 True, REDUCE mozjs_aux_sym__jsx_string_repeat2 2 0 0, SHIFT_REPEAT 1368]),
     (3267, [Entry 1 True, SHIFT 654]),
     (3269, [Entry 1 False, SHIFT 1254]),
     (3271, [Entry 1 True, SHIFT 1375]),
     (3273, [Entry 1 True, SHIFT 669]),
     (3275, [Entry 1 False, SHIFT 1256]),
     (3277, [Entry 1 True, SHIFT 126]),
     (3279, [Entry 1 True, SHIFT 1651]),
     (3281, [Entry 1 True, SHIFT 1755]),
     (3283, [Entry 1 True, SHIFT 460]),
     (3285, [Entry 1 True, SHIFT 459]),
     (3287, [Entry 1 True, SHIFT 424]),
     (3289, [Entry 1 True, SHIFT 1539]),
     (3291, [Entry 1 True, SHIFT 1497]),
     (3293, [Entry 1 True, SHIFT 1745]),
     (3295, [Entry 1 True, SHIFT 1506]),
     (3297, [Entry 1 True, SHIFT 1364]),
     (3299, [Entry 1 True, SHIFT 1563]),
     (3301, [Entry 1 True, SHIFT 1502]),
     (3303, [Entry 2 True, REDUCE mozjs_aux_sym_array_repeat1 2 0 0, SHIFT_REPEAT 123]),
     (3306, [Entry 1 True, SHIFT 1243]),
     (3308, [Entry 1 True, REDUCE mozjs_sym_template_substitution 3 0 0]),
     (3310, [Entry 1 True, SHIFT 656]),
     (3312, [Entry 1 True, SHIFT 1328]),
     (3314, [Entry 1 True, SHIFT 472]),
     (3316, [Entry 1 True, SHIFT 1559]),
     (3318, [Entry 1 True, SHIFT 1461]),
     (3320, [Entry 1 True, SHIFT 1259]),
     (3322, [Entry 1 True, SHIFT 467]),
     (3324, [Entry 1 True, SHIFT 1499]),
     (3326, [Entry 1 True, SHIFT 415]),
     (3328, [Entry 1 True, SHIFT 248]),
     (3330, [Entry 1 True, SHIFT 1693]),
     (3332, [Entry 1 True, SHIFT 1410]),
     (3334, [Entry 1 False, REDUCE mozjs_aux_sym_string_repeat1 2 0 0]),
     (3336, [Entry 2 True, REDUCE mozjs_aux_sym_string_repeat1 2 0 0, SHIFT_REPEAT 1404]),
     (3339, [Entry 1 False, REDUCE mozjs_aux_sym_string_repeat2 2 0 0]),
     (3341, [Entry 2 True, REDUCE mozjs_aux_sym_string_repeat2 2 0 0, SHIFT_REPEAT 1405])]"

definition mozjs_parse_actions_16 :: "(nat \<times> TSParseActionEntry list) list" where
  "mozjs_parse_actions_16 =
    [(3344, [Entry 2 True, REDUCE mozjs_aux_sym_variable_declaration_repeat1 2 0 0, SHIFT_REPEAT
      1196]),
     (3347, [Entry 1 True, REDUCE mozjs_aux_sym_variable_declaration_repeat1 2 0 0]),
     (3349, [Entry 1 True, SHIFT 1372]),
     (3351, [Entry 1 True, SHIFT 1247]),
     (3353, [Entry 1 True, SHIFT 1558]),
     (3355, [Entry 1 True, SHIFT 416]),
     (3357, [Entry 1 True, SHIFT 1622]),
     (3359, [Entry 1 True, SHIFT 807]),
     (3361, [Entry 1 True, SHIFT 1224]),
     (3363, [Entry 1 True, SHIFT 1239]),
     (3365, [Entry 1 True, SHIFT 1746]),
     (3367, [Entry 1 True, SHIFT 410]),
     (3369, [Entry 1 True, SHIFT 606]),
     (3371, [Entry 1 True, SHIFT 1213]),
     (3373, [Entry 1 True, SHIFT 1661]),
     (3375, [Entry 1 True, SHIFT 789]),
     (3377, [Entry 1 True, SHIFT 130]),
     (3379, [Entry 1 True, SHIFT 1647]),
     (3381, [Entry 1 True, SHIFT 1685]),
     (3383, [Entry 1 True, SHIFT 1686]),
     (3385, [Entry 1 True, SHIFT 811]),
     (3387, [Entry 1 True, SHIFT 1304]),
     (3389, [Entry 1 True, SHIFT 1110]),
     (3391, [Entry 1 True, SHIFT 647]),
     (3393, [Entry 1 True, SHIFT 1248]),
     (3395, [Entry 1 True, SHIFT 648]),
     (3397, [Entry 1 True, REDUCE mozjs_sym_export_clause 2 0 0]),
     (3399, [Entry 1 True, SHIFT 1320]),
     (3401, [Entry 1 True, SHIFT 1816]),
     (3403, [Entry 1 True, REDUCE mozjs_sym__from_clause 2 0 21]),
     (3405, [Entry 1 True, SHIFT 1537]),
     (3407, [Entry 1 True, SHIFT 114]),
     (3409, [Entry 1 True, SHIFT 735]),
     (3411, [Entry 1 True, SHIFT 609]),
     (3413, [Entry 1 True, SHIFT 1249]),
     (3415, [Entry 1 True, SHIFT 1255]),
     (3417, [Entry 1 True, REDUCE mozjs_sym_export_clause 4 0 0]),
     (3419, [Entry 2 True, REDUCE mozjs_aux_sym_export_clause_repeat1 2 0 0, SHIFT_REPEAT 1220]),
     (3422, [Entry 1 True, REDUCE mozjs_aux_sym_export_clause_repeat1 2 0 0]),
     (3424, [Entry 1 True, SHIFT 1735]),
     (3426, [Entry 1 True, SHIFT 113]),
     (3428, [Entry 1 True, REDUCE mozjs_sym_export_clause 3 0 0]),
     (3430, [Entry 1 True, SHIFT 1531]),
     (3432, [Entry 1 True, SHIFT 1034]),
     (3434, [Entry 1 True, SHIFT 1590]),
     (3436, [Entry 1 True, SHIFT 52]),
     (3438, [Entry 1 True, SHIFT 1198]),
     (3440, [Entry 1 True, SHIFT 1607]),
     (3442, [Entry 2 True, REDUCE mozjs_aux_sym_named_imports_repeat1 2 0 0, SHIFT_REPEAT 1227]),
     (3445, [Entry 1 True, REDUCE mozjs_aux_sym_named_imports_repeat1 2 0 0]),
     (3447, [Entry 1 True, SHIFT 600]),
     (3449, [Entry 1 True, SHIFT 1217]),
     (3451, [Entry 1 True, SHIFT 1206]),
     (3453, [Entry 1 True, SHIFT 1458]),
     (3455, [Entry 1 True, SHIFT 801]),
     (3457, [Entry 1 True, SHIFT 162]),
     (3459, [Entry 1 True, SHIFT 1756]),
     (3461, [Entry 1 True, SHIFT 190]),
     (3463, [Entry 1 True, SHIFT 1669]),
     (3465, [Entry 1 True, SHIFT 608]),
     (3467, [Entry 1 True, SHIFT 226]),
     (3469, [Entry 1 True, REDUCE mozjs_sym_pair_pattern 3 0 57]),
     (3471, [Entry 1 True, SHIFT 124]),
     (3473, [Entry 1 True, SHIFT 18]),
     (3475, [Entry 1 True, SHIFT 1238]),
     (3477, [Entry 2 True, REDUCE mozjs_aux_sym_object_repeat1 2 0 0, SHIFT_REPEAT 996]),
     (3480, [Entry 1 True, REDUCE mozjs_aux_sym_object_repeat1 2 0 0]),
     (3482, [Entry 2 True, REDUCE mozjs_aux_sym_object_pattern_repeat1 2 0 0, SHIFT_REPEAT 997]),
     (3485, [Entry 1 True, REDUCE mozjs_aux_sym_object_pattern_repeat1 2 0 0]),
     (3487, [Entry 1 True, REDUCE mozjs_sym__module_export_name 1 0 0]),
     (3489, [Entry 1 True, REDUCE mozjs_sym_import_specifier 1 0 6]),
     (3491, [Entry 1 True, SHIFT 1197]),
     (3493, [Entry 1 True, SHIFT 1778]),
     (3495, [Entry 1 True, REDUCE mozjs_sym_export_clause 5 0 0]),
     (3497, [Entry 1 True, REDUCE mozjs_aux_sym_array_pattern_repeat1 2 0 0]),
     (3499, [Entry 1 True, SHIFT 1204]),
     (3501, [Entry 1 True, SHIFT 1250]),
     (3503, [Entry 1 True, REDUCE mozjs_sym_export_specifier 1 0 6]),
     (3505, [Entry 1 True, SHIFT 797]),
     (3507, [Entry 1 True, SHIFT 1640]),
     (3509, [Entry 1 True, SHIFT 1565]),
     (3511, [Entry 1 True, SHIFT 1228]),
     (3513, [Entry 2 True, REDUCE mozjs_aux_sym_array_pattern_repeat1 2 0 0, SHIFT_REPEAT 121]),
     (3516, [Entry 1 True, SHIFT 1592]),
     (3518, [Entry 1 True, REDUCE mozjs_aux_sym_formal_parameters_repeat1 2 0 0]),
     (3520, [Entry 2 True, REDUCE mozjs_aux_sym_formal_parameters_repeat1 2 0 0, SHIFT_REPEAT
       137]),
     (3523, [Entry 1 True, SHIFT 1562]),
     (3525, [Entry 1 True, REDUCE mozjs_sym_field_definition 4 0 98]),
     (3527, [Entry 1 True, SHIFT 1374]),
     (3529, [Entry 1 True, REDUCE mozjs_sym_import_clause 1 0 0]),
     (3531, [Entry 1 True, SHIFT 1080]),
     (3533, [Entry 1 True, SHIFT 201]),
     (3535, [Entry 1 True, SHIFT 23]),
     (3537, [Entry 1 True, SHIFT 25]),
     (3539, [Entry 1 True, SHIFT 169]),
     (3541, [Entry 1 True, REDUCE mozjs_sym_formal_parameters 2 0 0]),
     (3543, [Entry 1 True, REDUCE mozjs_sym_field_definition 2 0 68]),
     (3545, [Entry 1 True, SHIFT 140]),
     (3547, [Entry 1 True, REDUCE mozjs_sym_export_specifier 3 0 83]),
     (3549, [Entry 1 True, SHIFT 16])]"

definition mozjs_parse_actions_17 :: "(nat \<times> TSParseActionEntry list) list" where
  "mozjs_parse_actions_17 =
    [(3551, [Entry 1 True, SHIFT 450]),
     (3553, [Entry 1 True, SHIFT 417]),
     (3555, [Entry 1 True, REDUCE mozjs_sym_import_specifier 3 0 83]),
     (3557, [Entry 1 True, SHIFT 532]),
     (3559, [Entry 1 True, SHIFT 534]),
     (3561, [Entry 1 True, SHIFT 498]),
     (3563, [Entry 1 True, SHIFT 492]),
     (3565, [Entry 1 True, SHIFT 1579]),
     (3567, [Entry 1 True, SHIFT 1776]),
     (3569, [Entry 1 True, SHIFT 175]),
     (3571, [Entry 1 True, SHIFT 161]),
     (3573, [Entry 1 True, REDUCE mozjs_sym_formal_parameters 3 0 0]),
     (3575, [Entry 1 True, SHIFT 178]),
     (3577, [Entry 1 True, REDUCE mozjs_sym_formal_parameters 5 0 0]),
     (3579, [Entry 1 True, REDUCE mozjs_sym_field_definition 3 0 85]),
     (3581, [Entry 1 True, SHIFT 461]),
     (3583, [Entry 1 True, REDUCE mozjs_sym_field_definition 3 0 87]),
     (3585, [Entry 1 True, SHIFT 210]),
     (3587, [Entry 1 True, SHIFT 1736]),
     (3589, [Entry 1 True, SHIFT 1841]),
     (3591, [Entry 1 False, SHIFT 1240]),
     (3593, [Entry 1 True, SHIFT 1240]),
     (3595, [Entry 1 True, REDUCE mozjs_sym_formal_parameters 4 0 0]),
     (3597, [Entry 1 True, SHIFT 432]),
     (3599, [Entry 1 True, SHIFT 431]),
     (3601, [Entry 1 True, REDUCE mozjs_sym_import_attribute 2 0 0]),
     (3603, [Entry 1 True, SHIFT 426]),
     (3605, [Entry 1 True, SHIFT 474]),
     (3607, [Entry 1 True, SHIFT 478]),
     (3609, [Entry 1 True, SHIFT 465]),
     (3611, [Entry 1 True, SHIFT 449]),
     (3613, [Entry 1 True, SHIFT 421]),
     (3615, [Entry 1 True, SHIFT 412]),
     (3617, [Entry 1 True, SHIFT 1242]),
     (3619, [Entry 1 True, SHIFT 986]),
     (3621, [Entry 1 True, SHIFT 209]),
     (3623, [Entry 1 True, SHIFT 740]),
     (3625, [Entry 1 True, SHIFT 1782]),
     (3627, [Entry 1 False, SHIFT 1854]),
     (3629, [Entry 1 True, SHIFT 270]),
     (3631, [Entry 1 True, SHIFT 607]),
     (3633, [Entry 1 True, SHIFT 160]),
     (3635, [Entry 1 True, REDUCE mozjs_sym_namespace_import 3 0 0]),
     (3637, [Entry 1 False, SHIFT 1823]),
     (3639, [Entry 1 True, SHIFT 1203]),
     (3641, [Entry 1 True, SHIFT 1542]),
     (3643, [Entry 1 True, SHIFT 217]),
     (3645, [Entry 1 True, REDUCE mozjs_sym_named_imports 3 0 0]),
     (3647, [Entry 1 True, SHIFT 188]),
     (3649, [Entry 1 True, SHIFT 131]),
     (3651, [Entry 1 True, SHIFT 1580]),
     (3653, [Entry 1 True, SHIFT 205]),
     (3655, [Entry 1 True, SHIFT 206]),
     (3657, [Entry 1 True, SHIFT 207]),
     (3659, [Entry 1 True, SHIFT 208]),
     (3661, [Entry 1 True, SHIFT 1066]),
     (3663, [Entry 1 True, SHIFT 153]),
     (3665, [Entry 1 False, SHIFT 1857]),
     (3667, [Entry 1 True, SHIFT 154]),
     (3669, [Entry 1 True, SHIFT 758]),
     (3671, [Entry 1 True, REDUCE mozjs_sym_import_clause 3 0 0]),
     (3673, [Entry 1 True, SHIFT 1398]),
     (3675, [Entry 1 True, SHIFT 277]),
     (3677, [Entry 1 True, SHIFT 296]),
     (3679, [Entry 1 True, SHIFT 182]),
     (3681, [Entry 1 True, SHIFT 170]),
     (3683, [Entry 1 True, REDUCE mozjs_sym_named_imports 4 0 0]),
     (3685, [Entry 1 True, ACCEPT_INPUT]),
     (3687, [Entry 1 True, REDUCE mozjs_sym_namespace_export 3 0 0]),
     (3689, [Entry 1 True, SHIFT 152]),
     (3691, [Entry 1 True, SHIFT 186]),
     (3693, [Entry 1 True, SHIFT 623]),
     (3695, [Entry 1 True, SHIFT 197]),
     (3697, [Entry 1 True, SHIFT 501]),
     (3699, [Entry 1 True, SHIFT 198]),
     (3701, [Entry 1 True, SHIFT 199]),
     (3703, [Entry 1 True, SHIFT 200]),
     (3705, [Entry 1 True, SHIFT 1872]),
     (3707, [Entry 1 False, SHIFT 1801]),
     (3709, [Entry 1 True, SHIFT 195]),
     (3711, [Entry 1 True, SHIFT 1591]),
     (3713, [Entry 1 True, SHIFT 1641]),
     (3715, [Entry 1 True, SHIFT 230]),
     (3717, [Entry 1 True, SHIFT 514]),
     (3719, [Entry 1 True, SHIFT 189]),
     (3721, [Entry 1 True, SHIFT 174]),
     (3723, [Entry 1 True, SHIFT 8]),
     (3725, [Entry 1 True, SHIFT 1635]),
     (3727, [Entry 1 True, SHIFT 1654]),
     (3729, [Entry 1 True, SHIFT 706]),
     (3731, [Entry 1 True, SHIFT 221]),
     (3733, [Entry 1 True, SHIFT 512]),
     (3735, [Entry 1 True, SHIFT 907]),
     (3737, [Entry 1 True, SHIFT 1241]),
     (3739, [Entry 1 True, SHIFT 1335]),
     (3741, [Entry 1 True, SHIFT 338]),
     (3743, [Entry 1 True, REDUCE mozjs_sym_named_imports 5 0 0]),
     (3745, [Entry 1 True, SHIFT 517]),
     (3747, [Entry 1 True, SHIFT 1772]),
     (3749, [Entry 1 True, REDUCE mozjs_sym_named_imports 2 0 0])]"

definition mozjs_parse_actions_18 :: "(nat \<times> TSParseActionEntry list) list" where
  "mozjs_parse_actions_18 =
    [(3751, [Entry 1 True, SHIFT 164]),
     (3753, [Entry 1 True, SHIFT 185])]"

definition mozjs_ts_parse_actions :: "(nat \<times> TSParseActionEntry list) list" where
  "mozjs_ts_parse_actions = mozjs_parse_actions_0 @ mozjs_parse_actions_1 @ mozjs_parse_actions_2
    @ mozjs_parse_actions_3 @ mozjs_parse_actions_4 @ mozjs_parse_actions_5 @
    mozjs_parse_actions_6 @ mozjs_parse_actions_7 @ mozjs_parse_actions_8 @ mozjs_parse_actions_9
    @ mozjs_parse_actions_10 @ mozjs_parse_actions_11 @ mozjs_parse_actions_12 @
    mozjs_parse_actions_13 @ mozjs_parse_actions_14 @ mozjs_parse_actions_15 @
    mozjs_parse_actions_16 @ mozjs_parse_actions_17 @ mozjs_parse_actions_18"

section \<open>The language object\<close>

definition tree_sitter_mozjs :: TSLanguage where
  "tree_sitter_mozjs =
    \<lparr>abi_version = mozjs_LANGUAGE_VERSION,
     symbol_count = mozjs_SYMBOL_COUNT,
     alias_count = mozjs_ALIAS_COUNT,
     token_count = mozjs_TOKEN_COUNT,
     external_token_count = mozjs_EXTERNAL_TOKEN_COUNT,
     state_count = mozjs_STATE_COUNT,
     large_state_count = mozjs_LARGE_STATE_COUNT,
     production_id_count = mozjs_PRODUCTION_ID_COUNT,
     field_count = mozjs_FIELD_COUNT,
     max_alias_sequence_length = mozjs_MAX_ALIAS_SEQUENCE_LENGTH,
     parse_table = flat_table 0 mozjs_SYMBOL_COUNT mozjs_ts_parse_table,
     small_parse_table = designated_from 0 mozjs_ts_small_parse_table,
     small_parse_table_map = array_of 0 mozjs_ts_small_parse_table_map,
     parse_actions = designated_from (Entry 0 False) mozjs_ts_parse_actions,
     symbol_names = array_of [] mozjs_ts_symbol_names,
     field_names = Some (array_of None mozjs_ts_field_names),
     field_map_slices = Some (array_of \<lparr>slice_index = 0, slice_length = 0\<rparr> mozjs_ts_field_map_slices),
     field_map_entries =
       Some (designated_from \<lparr>field_id = 0, child_index = 0, inherited = False\<rparr> mozjs_ts_field_map_entries),
     symbol_metadata = array_of \<lparr>visible = False, named = False, supertype = False\<rparr> mozjs_ts_symbol_metadata,
     public_symbol_map = array_of 0 mozjs_ts_symbol_map,
     alias_map = list_array 0 mozjs_ts_non_terminal_alias_map,
     alias_sequences = flat_table 0 mozjs_MAX_ALIAS_SEQUENCE_LENGTH mozjs_ts_alias_sequences,
     lex_modes = array_of \<lparr>lex_state = 0, external_lex_state = 0\<rparr> mozjs_ts_lex_modes,
     language_lex = mozjs_ts_lex,
     keyword_lex_fn = Some mozjs_ts_lex_keywords,
     keyword_capture_token = mozjs_sym_identifier,
     external_states = flat_table False mozjs_EXTERNAL_TOKEN_COUNT mozjs_ts_external_scanner_states,
     external_symbol_map = array_of 0 mozjs_ts_external_scanner_symbol_map,
     primary_state_ids = array_of 0 mozjs_ts_primary_state_ids\<rparr>"

lemmas mozjs_action_defs =
  mozjs_parse_actions_0_def mozjs_parse_actions_1_def mozjs_parse_actions_2_def
    mozjs_parse_actions_3_def mozjs_parse_actions_4_def mozjs_parse_actions_5_def
    mozjs_parse_actions_6_def mozjs_parse_actions_7_def mozjs_parse_actions_8_def
    mozjs_parse_actions_9_def mozjs_parse_actions_10_def mozjs_parse_actions_11_def
    mozjs_parse_actions_12_def mozjs_parse_actions_13_def mozjs_parse_actions_14_def
    mozjs_parse_actions_15_def mozjs_parse_actions_16_def mozjs_parse_actions_17_def
    mozjs_parse_actions_18_def

section \<open>Reading the initialisers\<close>

lemma mozjs_sizes:
  "symbol_count tree_sitter_mozjs = mozjs_SYMBOL_COUNT" "token_count tree_sitter_mozjs = mozjs_TOKEN_COUNT"
  "state_count tree_sitter_mozjs = mozjs_STATE_COUNT" "large_state_count tree_sitter_mozjs = mozjs_LARGE_STATE_COUNT"
  "production_id_count tree_sitter_mozjs = mozjs_PRODUCTION_ID_COUNT"
  "external_token_count tree_sitter_mozjs = mozjs_EXTERNAL_TOKEN_COUNT"
  by (simp_all add: tree_sitter_mozjs_def)

lemma mozjs_actions_follow:
  "contiguous_to 0 mozjs_parse_actions_0 215"
  "contiguous_to 215 mozjs_parse_actions_1 459"
  "contiguous_to 459 mozjs_parse_actions_2 677"
  "contiguous_to 677 mozjs_parse_actions_3 879"
  "contiguous_to 879 mozjs_parse_actions_4 1084"
  "contiguous_to 1084 mozjs_parse_actions_5 1285"
  "contiguous_to 1285 mozjs_parse_actions_6 1487"
  "contiguous_to 1487 mozjs_parse_actions_7 1694"
  "contiguous_to 1694 mozjs_parse_actions_8 1895"
  "contiguous_to 1895 mozjs_parse_actions_9 2104"
  "contiguous_to 2104 mozjs_parse_actions_10 2306"
  "contiguous_to 2306 mozjs_parse_actions_11 2520"
  "contiguous_to 2520 mozjs_parse_actions_12 2722"
  "contiguous_to 2722 mozjs_parse_actions_13 2929"
  "contiguous_to 2929 mozjs_parse_actions_14 3136"
  "contiguous_to 3136 mozjs_parse_actions_15 3344"
  "contiguous_to 3344 mozjs_parse_actions_16 3551"
  "contiguous_to 3551 mozjs_parse_actions_17 3751"
  "contiguous_to 3751 mozjs_parse_actions_18 3755"
  by (simp_all add: mozjs_action_defs action_macros)

lemma mozjs_actions_contiguous: "contiguous 0 mozjs_ts_parse_actions"
  unfolding mozjs_ts_parse_actions_def
  by (rule contiguous_to_contiguous, (rule contiguous_to_append mozjs_actions_follow)+)

lemma mozjs_no_action: "(0, [Entry 0 False]) \<in> set mozjs_ts_parse_actions"
  by (simp add: mozjs_ts_parse_actions_def mozjs_parse_actions_0_def)

interpretation mozjs_init: table_initialisers tree_sitter_mozjs mozjs_ts_parse_table mozjs_ts_small_parse_table_map
    mozjs_ts_small_parse_table mozjs_ts_parse_actions
  by unfold_locales
    (simp_all add: tree_sitter_mozjs_def mozjs_runs_contiguous mozjs_actions_contiguous mozjs_map_states mozjs_no_action)

end
