(* ===== verification/Mozjs_Modes.thy ===== *)
theory Mozjs_Modes
  imports Mozjs_Table
begin

text \<open>
  What the lex mode of a state of the JavaScript parser can give it: for each lex state a text for every token
  asked for there, and the external tokens of each external state. The tables are checked against
  these lists entry by entry.
\<close>

section \<open>Cases by number\<close>

lemma mozjs_case_facts:
  "mozjs_lex_cases ! 0 = mozjs_lex_0"
  "mozjs_lex_cases ! Suc 0 = mozjs_lex_1"
  "mozjs_lex_cases ! 2 = mozjs_lex_2"
  "mozjs_lex_cases ! 3 = mozjs_lex_3"
  "mozjs_lex_cases ! 4 = mozjs_lex_4"
  "mozjs_lex_cases ! 5 = mozjs_lex_5"
  "mozjs_lex_cases ! 6 = mozjs_lex_6"
  "mozjs_lex_cases ! 7 = mozjs_lex_7"
  "mozjs_lex_cases ! 8 = mozjs_lex_8"
  "mozjs_lex_cases ! 9 = mozjs_lex_9"
  "mozjs_lex_cases ! 10 = mozjs_lex_10"
  "mozjs_lex_cases ! 11 = mozjs_lex_11"
  "mozjs_lex_cases ! 12 = mozjs_lex_12"
  "mozjs_lex_cases ! 13 = mozjs_lex_13"
  "mozjs_lex_cases ! 14 = mozjs_lex_14"
  "mozjs_lex_cases ! 15 = mozjs_lex_15"
  "mozjs_lex_cases ! 16 = mozjs_lex_16"
  "mozjs_lex_cases ! 17 = mozjs_lex_17"
  "mozjs_lex_cases ! 18 = mozjs_lex_18"
  "mozjs_lex_cases ! 19 = mozjs_lex_19"
  "mozjs_lex_cases ! 20 = mozjs_lex_20"
  "mozjs_lex_cases ! 21 = mozjs_lex_21"
  "mozjs_lex_cases ! 22 = mozjs_lex_22"
  "mozjs_lex_cases ! 23 = mozjs_lex_23"
  "mozjs_lex_cases ! 24 = mozjs_lex_24"
  "mozjs_lex_cases ! 25 = mozjs_lex_25"
  "mozjs_lex_cases ! 26 = mozjs_lex_26"
  "mozjs_lex_cases ! 27 = mozjs_lex_27"
  "mozjs_lex_cases ! 28 = mozjs_lex_28"
  "mozjs_lex_cases ! 29 = mozjs_lex_29"
  "mozjs_lex_cases ! 30 = mozjs_lex_30"
  "mozjs_lex_cases ! 31 = mozjs_lex_31"
  "mozjs_lex_cases ! 32 = mozjs_lex_32"
  "mozjs_lex_cases ! 33 = mozjs_lex_33"
  "mozjs_lex_cases ! 34 = mozjs_lex_34"
  "mozjs_lex_cases ! 35 = mozjs_lex_35"
  "mozjs_lex_cases ! 36 = mozjs_lex_36"
  "mozjs_lex_cases ! 37 = mozjs_lex_37"
  "mozjs_lex_cases ! 38 = mozjs_lex_38"
  "mozjs_lex_cases ! 39 = mozjs_lex_39"
  "mozjs_lex_cases ! 40 = mozjs_lex_40"
  "mozjs_lex_cases ! 41 = mozjs_lex_41"
  "mozjs_lex_cases ! 42 = mozjs_lex_42"
  "mozjs_lex_cases ! 43 = mozjs_lex_43"
  "mozjs_lex_cases ! 44 = mozjs_lex_44"
  "mozjs_lex_cases ! 45 = mozjs_lex_45"
  "mozjs_lex_cases ! 46 = mozjs_lex_46"
  "mozjs_lex_cases ! 47 = mozjs_lex_47"
  "mozjs_lex_cases ! 48 = mozjs_lex_48"
  "mozjs_lex_cases ! 49 = mozjs_lex_49"
  "mozjs_lex_cases ! 50 = mozjs_lex_50"
  "mozjs_lex_cases ! 51 = mozjs_lex_51"
  "mozjs_lex_cases ! 52 = mozjs_lex_52"
  "mozjs_lex_cases ! 53 = mozjs_lex_53"
  "mozjs_lex_cases ! 54 = mozjs_lex_54"
  "mozjs_lex_cases ! 55 = mozjs_lex_55"
  "mozjs_lex_cases ! 56 = mozjs_lex_56"
  "mozjs_lex_cases ! 57 = mozjs_lex_57"
  "mozjs_lex_cases ! 58 = mozjs_lex_58"
  "mozjs_lex_cases ! 59 = mozjs_lex_59"
  "mozjs_lex_cases ! 60 = mozjs_lex_60"
  "mozjs_lex_cases ! 61 = mozjs_lex_61"
  "mozjs_lex_cases ! 62 = mozjs_lex_62"
  "mozjs_lex_cases ! 63 = mozjs_lex_63"
  "mozjs_lex_cases ! 64 = mozjs_lex_64"
  "mozjs_lex_cases ! 65 = mozjs_lex_65"
  "mozjs_lex_cases ! 66 = mozjs_lex_66"
  "mozjs_lex_cases ! 67 = mozjs_lex_67"
  "mozjs_lex_cases ! 68 = mozjs_lex_68"
  "mozjs_lex_cases ! 69 = mozjs_lex_69"
  "mozjs_lex_cases ! 70 = mozjs_lex_70"
  "mozjs_lex_cases ! 71 = mozjs_lex_71"
  "mozjs_lex_cases ! 72 = mozjs_lex_72"
  "mozjs_lex_cases ! 73 = mozjs_lex_73"
  "mozjs_lex_cases ! 74 = mozjs_lex_74"
  "mozjs_lex_cases ! 75 = mozjs_lex_75"
  "mozjs_lex_cases ! 76 = mozjs_lex_76"
  "mozjs_lex_cases ! 77 = mozjs_lex_77"
  "mozjs_lex_cases ! 78 = mozjs_lex_78"
  "mozjs_lex_cases ! 79 = mozjs_lex_79"
  "mozjs_lex_cases ! 80 = mozjs_lex_80"
  "mozjs_lex_cases ! 81 = mozjs_lex_81"
  "mozjs_lex_cases ! 82 = mozjs_lex_82"
  "mozjs_lex_cases ! 83 = mozjs_lex_83"
  "mozjs_lex_cases ! 84 = mozjs_lex_84"
  "mozjs_lex_cases ! 85 = mozjs_lex_85"
  "mozjs_lex_cases ! 86 = mozjs_lex_86"
  "mozjs_lex_cases ! 87 = mozjs_lex_87"
  "mozjs_lex_cases ! 88 = mozjs_lex_88"
  "mozjs_lex_cases ! 89 = mozjs_lex_89"
  "mozjs_lex_cases ! 90 = mozjs_lex_90"
  "mozjs_lex_cases ! 91 = mozjs_lex_91"
  "mozjs_lex_cases ! 92 = mozjs_lex_92"
  "mozjs_lex_cases ! 93 = mozjs_lex_93"
  "mozjs_lex_cases ! 94 = mozjs_lex_94"
  "mozjs_lex_cases ! 95 = mozjs_lex_95"
  "mozjs_lex_cases ! 96 = mozjs_lex_96"
  "mozjs_lex_cases ! 97 = mozjs_lex_97"
  "mozjs_lex_cases ! 98 = mozjs_lex_98"
  "mozjs_lex_cases ! 99 = mozjs_lex_99"
  "mozjs_lex_cases ! 100 = mozjs_lex_100"
  "mozjs_lex_cases ! 101 = mozjs_lex_101"
  "mozjs_lex_cases ! 102 = mozjs_lex_102"
  "mozjs_lex_cases ! 103 = mozjs_lex_103"
  "mozjs_lex_cases ! 104 = mozjs_lex_104"
  "mozjs_lex_cases ! 105 = mozjs_lex_105"
  "mozjs_lex_cases ! 106 = mozjs_lex_106"
  "mozjs_lex_cases ! 107 = mozjs_lex_107"
  "mozjs_lex_cases ! 108 = mozjs_lex_108"
  "mozjs_lex_cases ! 109 = mozjs_lex_109"
  "mozjs_lex_cases ! 110 = mozjs_lex_110"
  "mozjs_lex_cases ! 111 = mozjs_lex_111"
  "mozjs_lex_cases ! 112 = mozjs_lex_112"
  "mozjs_lex_cases ! 113 = mozjs_lex_113"
  "mozjs_lex_cases ! 114 = mozjs_lex_114"
  "mozjs_lex_cases ! 115 = mozjs_lex_115"
  "mozjs_lex_cases ! 116 = mozjs_lex_116"
  "mozjs_lex_cases ! 117 = mozjs_lex_117"
  "mozjs_lex_cases ! 118 = mozjs_lex_118"
  "mozjs_lex_cases ! 119 = mozjs_lex_119"
  "mozjs_lex_cases ! 120 = mozjs_lex_120"
  "mozjs_lex_cases ! 121 = mozjs_lex_121"
  "mozjs_lex_cases ! 122 = mozjs_lex_122"
  "mozjs_lex_cases ! 123 = mozjs_lex_123"
  "mozjs_lex_cases ! 124 = mozjs_lex_124"
  "mozjs_lex_cases ! 125 = mozjs_lex_125"
  "mozjs_lex_cases ! 126 = mozjs_lex_126"
  "mozjs_lex_cases ! 127 = mozjs_lex_127"
  "mozjs_lex_cases ! 128 = mozjs_lex_128"
  "mozjs_lex_cases ! 129 = mozjs_lex_129"
  "mozjs_lex_cases ! 130 = mozjs_lex_130"
  "mozjs_lex_cases ! 131 = mozjs_lex_131"
  "mozjs_lex_cases ! 132 = mozjs_lex_132"
  "mozjs_lex_cases ! 133 = mozjs_lex_133"
  "mozjs_lex_cases ! 134 = mozjs_lex_134"
  "mozjs_lex_cases ! 135 = mozjs_lex_135"
  "mozjs_lex_cases ! 136 = mozjs_lex_136"
  "mozjs_lex_cases ! 137 = mozjs_lex_137"
  "mozjs_lex_cases ! 138 = mozjs_lex_138"
  "mozjs_lex_cases ! 139 = mozjs_lex_139"
  "mozjs_lex_cases ! 140 = mozjs_lex_140"
  "mozjs_lex_cases ! 141 = mozjs_lex_141"
  "mozjs_lex_cases ! 142 = mozjs_lex_142"
  "mozjs_lex_cases ! 143 = mozjs_lex_143"
  "mozjs_lex_cases ! 144 = mozjs_lex_144"
  "mozjs_lex_cases ! 145 = mozjs_lex_145"
  "mozjs_lex_cases ! 146 = mozjs_lex_146"
  "mozjs_lex_cases ! 147 = mozjs_lex_147"
  "mozjs_lex_cases ! 148 = mozjs_lex_148"
  "mozjs_lex_cases ! 149 = mozjs_lex_149"
  "mozjs_lex_cases ! 150 = mozjs_lex_150"
  "mozjs_lex_cases ! 151 = mozjs_lex_151"
  "mozjs_lex_cases ! 152 = mozjs_lex_152"
  "mozjs_lex_cases ! 153 = mozjs_lex_153"
  "mozjs_lex_cases ! 154 = mozjs_lex_154"
  "mozjs_lex_cases ! 155 = mozjs_lex_155"
  "mozjs_lex_cases ! 156 = mozjs_lex_156"
  "mozjs_lex_cases ! 157 = mozjs_lex_157"
  "mozjs_lex_cases ! 158 = mozjs_lex_158"
  "mozjs_lex_cases ! 159 = mozjs_lex_159"
  "mozjs_lex_cases ! 160 = mozjs_lex_160"
  "mozjs_lex_cases ! 161 = mozjs_lex_161"
  "mozjs_lex_cases ! 162 = mozjs_lex_162"
  "mozjs_lex_cases ! 163 = mozjs_lex_163"
  "mozjs_lex_cases ! 164 = mozjs_lex_164"
  "mozjs_lex_cases ! 165 = mozjs_lex_165"
  "mozjs_lex_cases ! 166 = mozjs_lex_166"
  "mozjs_lex_cases ! 167 = mozjs_lex_167"
  "mozjs_lex_cases ! 168 = mozjs_lex_168"
  "mozjs_lex_cases ! 169 = mozjs_lex_169"
  "mozjs_lex_cases ! 170 = mozjs_lex_170"
  "mozjs_lex_cases ! 171 = mozjs_lex_171"
  "mozjs_lex_cases ! 172 = mozjs_lex_172"
  "mozjs_lex_cases ! 173 = mozjs_lex_173"
  "mozjs_lex_cases ! 174 = mozjs_lex_174"
  "mozjs_lex_cases ! 175 = mozjs_lex_175"
  "mozjs_lex_cases ! 176 = mozjs_lex_176"
  "mozjs_lex_cases ! 177 = mozjs_lex_177"
  "mozjs_lex_cases ! 178 = mozjs_lex_178"
  "mozjs_lex_cases ! 179 = mozjs_lex_179"
  "mozjs_lex_cases ! 180 = mozjs_lex_180"
  "mozjs_lex_cases ! 181 = mozjs_lex_181"
  "mozjs_lex_cases ! 182 = mozjs_lex_182"
  "mozjs_lex_cases ! 183 = mozjs_lex_183"
  "mozjs_lex_cases ! 184 = mozjs_lex_184"
  "mozjs_lex_cases ! 185 = mozjs_lex_185"
  "mozjs_lex_cases ! 186 = mozjs_lex_186"
  "mozjs_lex_cases ! 187 = mozjs_lex_187"
  "mozjs_lex_cases ! 188 = mozjs_lex_188"
  "mozjs_lex_cases ! 189 = mozjs_lex_189"
  "mozjs_lex_cases ! 190 = mozjs_lex_190"
  "mozjs_lex_cases ! 191 = mozjs_lex_191"
  "mozjs_lex_cases ! 192 = mozjs_lex_192"
  "mozjs_lex_cases ! 193 = mozjs_lex_193"
  "mozjs_lex_cases ! 194 = mozjs_lex_194"
  "mozjs_lex_cases ! 195 = mozjs_lex_195"
  "mozjs_lex_cases ! 196 = mozjs_lex_196"
  "mozjs_lex_cases ! 197 = mozjs_lex_197"
  "mozjs_lex_cases ! 198 = mozjs_lex_198"
  "mozjs_lex_cases ! 199 = mozjs_lex_199"
  "mozjs_lex_cases ! 200 = mozjs_lex_200"
  "mozjs_lex_cases ! 201 = mozjs_lex_201"
  "mozjs_lex_cases ! 202 = mozjs_lex_202"
  "mozjs_lex_cases ! 203 = mozjs_lex_203"
  "mozjs_lex_cases ! 204 = mozjs_lex_204"
  "mozjs_lex_cases ! 205 = mozjs_lex_205"
  "mozjs_lex_cases ! 206 = mozjs_lex_206"
  "mozjs_lex_cases ! 207 = mozjs_lex_207"
  "mozjs_lex_cases ! 208 = mozjs_lex_208"
  "mozjs_lex_cases ! 209 = mozjs_lex_209"
  "mozjs_lex_cases ! 210 = mozjs_lex_210"
  "mozjs_lex_cases ! 211 = mozjs_lex_211"
  "mozjs_lex_cases ! 212 = mozjs_lex_212"
  "mozjs_lex_cases ! 213 = mozjs_lex_213"
  "mozjs_lex_cases ! 214 = mozjs_lex_214"
  "mozjs_lex_cases ! 215 = mozjs_lex_215"
  "mozjs_lex_cases ! 216 = mozjs_lex_216"
  "mozjs_lex_cases ! 217 = mozjs_lex_217"
  "mozjs_lex_cases ! 218 = mozjs_lex_218"
  "mozjs_lex_cases ! 219 = mozjs_lex_219"
  "mozjs_lex_cases ! 220 = mozjs_lex_220"
  "mozjs_lex_cases ! 221 = mozjs_lex_221"
  "mozjs_lex_cases ! 222 = mozjs_lex_222"
  "mozjs_lex_cases ! 223 = mozjs_lex_223"
  "mozjs_lex_cases ! 224 = mozjs_lex_224"
  "mozjs_lex_cases ! 225 = mozjs_lex_225"
  "mozjs_lex_cases ! 226 = mozjs_lex_226"
  "mozjs_lex_cases ! 227 = mozjs_lex_227"
  "mozjs_lex_cases ! 228 = mozjs_lex_228"
  "mozjs_lex_cases ! 229 = mozjs_lex_229"
  "mozjs_lex_cases ! 230 = mozjs_lex_230"
  "mozjs_lex_cases ! 231 = mozjs_lex_231"
  "mozjs_lex_cases ! 232 = mozjs_lex_232"
  "mozjs_lex_cases ! 233 = mozjs_lex_233"
  "mozjs_lex_cases ! 234 = mozjs_lex_234"
  "mozjs_lex_cases ! 235 = mozjs_lex_235"
  "mozjs_lex_cases ! 236 = mozjs_lex_236"
  "mozjs_lex_cases ! 237 = mozjs_lex_237"
  "mozjs_lex_cases ! 238 = mozjs_lex_238"
  "mozjs_lex_cases ! 239 = mozjs_lex_239"
  "mozjs_lex_cases ! 240 = mozjs_lex_240"
  "mozjs_lex_cases ! 241 = mozjs_lex_241"
  "mozjs_lex_cases ! 242 = mozjs_lex_242"
  "mozjs_lex_cases ! 243 = mozjs_lex_243"
  "mozjs_lex_cases ! 244 = mozjs_lex_244"
  "mozjs_lex_cases ! 245 = mozjs_lex_245"
  "mozjs_lex_cases ! 246 = mozjs_lex_246"
  "mozjs_lex_cases ! 247 = mozjs_lex_247"
  "mozjs_lex_cases ! 248 = mozjs_lex_248"
  "mozjs_lex_cases ! 249 = mozjs_lex_249"
  "mozjs_lex_cases ! 250 = mozjs_lex_250"
  "mozjs_lex_cases ! 251 = mozjs_lex_251"
  "mozjs_lex_cases ! 252 = mozjs_lex_252"
  "mozjs_lex_cases ! 253 = mozjs_lex_253"
  "mozjs_lex_cases ! 254 = mozjs_lex_254"
  "mozjs_lex_cases ! 255 = mozjs_lex_255"
  "mozjs_lex_cases ! 256 = mozjs_lex_256"
  "mozjs_lex_cases ! 257 = mozjs_lex_257"
  "mozjs_lex_cases ! 258 = mozjs_lex_258"
  "mozjs_lex_cases ! 259 = mozjs_lex_259"
  "mozjs_lex_cases ! 260 = mozjs_lex_260"
  "mozjs_lex_cases ! 261 = mozjs_lex_261"
  "mozjs_lex_cases ! 262 = mozjs_lex_262"
  "mozjs_lex_cases ! 263 = mozjs_lex_263"
  "mozjs_lex_cases ! 264 = mozjs_lex_264"
  "mozjs_lex_cases ! 265 = mozjs_lex_265"
  "mozjs_lex_cases ! 266 = mozjs_lex_266"
  "mozjs_lex_cases ! 267 = mozjs_lex_267"
  "mozjs_lex_cases ! 268 = mozjs_lex_268"
  "mozjs_lex_cases ! 269 = mozjs_lex_269"
  "mozjs_lex_cases ! 270 = mozjs_lex_270"
  "mozjs_lex_cases ! 271 = mozjs_lex_271"
  "mozjs_lex_cases ! 272 = mozjs_lex_272"
  "mozjs_lex_cases ! 273 = mozjs_lex_273"
  "mozjs_lex_cases ! 274 = mozjs_lex_274"
  "mozjs_lex_cases ! 275 = mozjs_lex_275"
  "mozjs_lex_cases ! 276 = mozjs_lex_276"
  "mozjs_lex_cases ! 277 = mozjs_lex_277"
  "mozjs_lex_cases ! 278 = mozjs_lex_278"
  "mozjs_lex_cases ! 279 = mozjs_lex_279"
  "mozjs_lex_cases ! 280 = mozjs_lex_280"
  "mozjs_lex_cases ! 281 = mozjs_lex_281"
  "mozjs_lex_cases ! 282 = mozjs_lex_282"
  "mozjs_lex_cases ! 283 = mozjs_lex_283"
  "mozjs_lex_cases ! 284 = mozjs_lex_284"
  "mozjs_lex_cases ! 285 = mozjs_lex_285"
  "mozjs_lex_cases ! 286 = mozjs_lex_286"
  "mozjs_lex_cases ! 287 = mozjs_lex_287"
  "mozjs_lex_cases ! 288 = mozjs_lex_288"
  "mozjs_lex_cases ! 289 = mozjs_lex_289"
  "mozjs_lex_cases ! 290 = mozjs_lex_290"
  "mozjs_lex_cases ! 291 = mozjs_lex_291"
  "mozjs_lex_cases ! 292 = mozjs_lex_292"
  "mozjs_lex_cases ! 293 = mozjs_lex_293"
  by (simp_all add: mozjs_lex_list)

lemma mozjs_kw_case_facts:
  "mozjs_kw_cases ! 0 = mozjs_kw_0"
  "mozjs_kw_cases ! Suc 0 = mozjs_kw_1"
  "mozjs_kw_cases ! 2 = mozjs_kw_2"
  "mozjs_kw_cases ! 3 = mozjs_kw_3"
  "mozjs_kw_cases ! 4 = mozjs_kw_4"
  "mozjs_kw_cases ! 5 = mozjs_kw_5"
  "mozjs_kw_cases ! 6 = mozjs_kw_6"
  "mozjs_kw_cases ! 7 = mozjs_kw_7"
  "mozjs_kw_cases ! 8 = mozjs_kw_8"
  "mozjs_kw_cases ! 9 = mozjs_kw_9"
  "mozjs_kw_cases ! 10 = mozjs_kw_10"
  "mozjs_kw_cases ! 11 = mozjs_kw_11"
  "mozjs_kw_cases ! 12 = mozjs_kw_12"
  "mozjs_kw_cases ! 13 = mozjs_kw_13"
  "mozjs_kw_cases ! 14 = mozjs_kw_14"
  "mozjs_kw_cases ! 15 = mozjs_kw_15"
  "mozjs_kw_cases ! 16 = mozjs_kw_16"
  "mozjs_kw_cases ! 17 = mozjs_kw_17"
  "mozjs_kw_cases ! 18 = mozjs_kw_18"
  "mozjs_kw_cases ! 19 = mozjs_kw_19"
  "mozjs_kw_cases ! 20 = mozjs_kw_20"
  "mozjs_kw_cases ! 21 = mozjs_kw_21"
  "mozjs_kw_cases ! 22 = mozjs_kw_22"
  "mozjs_kw_cases ! 23 = mozjs_kw_23"
  "mozjs_kw_cases ! 24 = mozjs_kw_24"
  "mozjs_kw_cases ! 25 = mozjs_kw_25"
  "mozjs_kw_cases ! 26 = mozjs_kw_26"
  "mozjs_kw_cases ! 27 = mozjs_kw_27"
  "mozjs_kw_cases ! 28 = mozjs_kw_28"
  "mozjs_kw_cases ! 29 = mozjs_kw_29"
  "mozjs_kw_cases ! 30 = mozjs_kw_30"
  "mozjs_kw_cases ! 31 = mozjs_kw_31"
  "mozjs_kw_cases ! 32 = mozjs_kw_32"
  "mozjs_kw_cases ! 33 = mozjs_kw_33"
  "mozjs_kw_cases ! 34 = mozjs_kw_34"
  "mozjs_kw_cases ! 35 = mozjs_kw_35"
  "mozjs_kw_cases ! 36 = mozjs_kw_36"
  "mozjs_kw_cases ! 37 = mozjs_kw_37"
  "mozjs_kw_cases ! 38 = mozjs_kw_38"
  "mozjs_kw_cases ! 39 = mozjs_kw_39"
  "mozjs_kw_cases ! 40 = mozjs_kw_40"
  "mozjs_kw_cases ! 41 = mozjs_kw_41"
  "mozjs_kw_cases ! 42 = mozjs_kw_42"
  "mozjs_kw_cases ! 43 = mozjs_kw_43"
  "mozjs_kw_cases ! 44 = mozjs_kw_44"
  "mozjs_kw_cases ! 45 = mozjs_kw_45"
  "mozjs_kw_cases ! 46 = mozjs_kw_46"
  "mozjs_kw_cases ! 47 = mozjs_kw_47"
  "mozjs_kw_cases ! 48 = mozjs_kw_48"
  "mozjs_kw_cases ! 49 = mozjs_kw_49"
  "mozjs_kw_cases ! 50 = mozjs_kw_50"
  "mozjs_kw_cases ! 51 = mozjs_kw_51"
  "mozjs_kw_cases ! 52 = mozjs_kw_52"
  "mozjs_kw_cases ! 53 = mozjs_kw_53"
  "mozjs_kw_cases ! 54 = mozjs_kw_54"
  "mozjs_kw_cases ! 55 = mozjs_kw_55"
  "mozjs_kw_cases ! 56 = mozjs_kw_56"
  "mozjs_kw_cases ! 57 = mozjs_kw_57"
  "mozjs_kw_cases ! 58 = mozjs_kw_58"
  "mozjs_kw_cases ! 59 = mozjs_kw_59"
  "mozjs_kw_cases ! 60 = mozjs_kw_60"
  "mozjs_kw_cases ! 61 = mozjs_kw_61"
  "mozjs_kw_cases ! 62 = mozjs_kw_62"
  "mozjs_kw_cases ! 63 = mozjs_kw_63"
  "mozjs_kw_cases ! 64 = mozjs_kw_64"
  "mozjs_kw_cases ! 65 = mozjs_kw_65"
  "mozjs_kw_cases ! 66 = mozjs_kw_66"
  "mozjs_kw_cases ! 67 = mozjs_kw_67"
  "mozjs_kw_cases ! 68 = mozjs_kw_68"
  "mozjs_kw_cases ! 69 = mozjs_kw_69"
  "mozjs_kw_cases ! 70 = mozjs_kw_70"
  "mozjs_kw_cases ! 71 = mozjs_kw_71"
  "mozjs_kw_cases ! 72 = mozjs_kw_72"
  "mozjs_kw_cases ! 73 = mozjs_kw_73"
  "mozjs_kw_cases ! 74 = mozjs_kw_74"
  "mozjs_kw_cases ! 75 = mozjs_kw_75"
  "mozjs_kw_cases ! 76 = mozjs_kw_76"
  "mozjs_kw_cases ! 77 = mozjs_kw_77"
  "mozjs_kw_cases ! 78 = mozjs_kw_78"
  "mozjs_kw_cases ! 79 = mozjs_kw_79"
  "mozjs_kw_cases ! 80 = mozjs_kw_80"
  "mozjs_kw_cases ! 81 = mozjs_kw_81"
  "mozjs_kw_cases ! 82 = mozjs_kw_82"
  "mozjs_kw_cases ! 83 = mozjs_kw_83"
  "mozjs_kw_cases ! 84 = mozjs_kw_84"
  "mozjs_kw_cases ! 85 = mozjs_kw_85"
  "mozjs_kw_cases ! 86 = mozjs_kw_86"
  "mozjs_kw_cases ! 87 = mozjs_kw_87"
  "mozjs_kw_cases ! 88 = mozjs_kw_88"
  "mozjs_kw_cases ! 89 = mozjs_kw_89"
  "mozjs_kw_cases ! 90 = mozjs_kw_90"
  "mozjs_kw_cases ! 91 = mozjs_kw_91"
  "mozjs_kw_cases ! 92 = mozjs_kw_92"
  "mozjs_kw_cases ! 93 = mozjs_kw_93"
  "mozjs_kw_cases ! 94 = mozjs_kw_94"
  "mozjs_kw_cases ! 95 = mozjs_kw_95"
  "mozjs_kw_cases ! 96 = mozjs_kw_96"
  "mozjs_kw_cases ! 97 = mozjs_kw_97"
  "mozjs_kw_cases ! 98 = mozjs_kw_98"
  "mozjs_kw_cases ! 99 = mozjs_kw_99"
  "mozjs_kw_cases ! 100 = mozjs_kw_100"
  "mozjs_kw_cases ! 101 = mozjs_kw_101"
  "mozjs_kw_cases ! 102 = mozjs_kw_102"
  "mozjs_kw_cases ! 103 = mozjs_kw_103"
  "mozjs_kw_cases ! 104 = mozjs_kw_104"
  "mozjs_kw_cases ! 105 = mozjs_kw_105"
  "mozjs_kw_cases ! 106 = mozjs_kw_106"
  "mozjs_kw_cases ! 107 = mozjs_kw_107"
  "mozjs_kw_cases ! 108 = mozjs_kw_108"
  "mozjs_kw_cases ! 109 = mozjs_kw_109"
  "mozjs_kw_cases ! 110 = mozjs_kw_110"
  "mozjs_kw_cases ! 111 = mozjs_kw_111"
  "mozjs_kw_cases ! 112 = mozjs_kw_112"
  "mozjs_kw_cases ! 113 = mozjs_kw_113"
  "mozjs_kw_cases ! 114 = mozjs_kw_114"
  "mozjs_kw_cases ! 115 = mozjs_kw_115"
  "mozjs_kw_cases ! 116 = mozjs_kw_116"
  "mozjs_kw_cases ! 117 = mozjs_kw_117"
  "mozjs_kw_cases ! 118 = mozjs_kw_118"
  "mozjs_kw_cases ! 119 = mozjs_kw_119"
  "mozjs_kw_cases ! 120 = mozjs_kw_120"
  "mozjs_kw_cases ! 121 = mozjs_kw_121"
  "mozjs_kw_cases ! 122 = mozjs_kw_122"
  "mozjs_kw_cases ! 123 = mozjs_kw_123"
  "mozjs_kw_cases ! 124 = mozjs_kw_124"
  "mozjs_kw_cases ! 125 = mozjs_kw_125"
  "mozjs_kw_cases ! 126 = mozjs_kw_126"
  "mozjs_kw_cases ! 127 = mozjs_kw_127"
  "mozjs_kw_cases ! 128 = mozjs_kw_128"
  "mozjs_kw_cases ! 129 = mozjs_kw_129"
  "mozjs_kw_cases ! 130 = mozjs_kw_130"
  "mozjs_kw_cases ! 131 = mozjs_kw_131"
  "mozjs_kw_cases ! 132 = mozjs_kw_132"
  "mozjs_kw_cases ! 133 = mozjs_kw_133"
  "mozjs_kw_cases ! 134 = mozjs_kw_134"
  "mozjs_kw_cases ! 135 = mozjs_kw_135"
  "mozjs_kw_cases ! 136 = mozjs_kw_136"
  "mozjs_kw_cases ! 137 = mozjs_kw_137"
  "mozjs_kw_cases ! 138 = mozjs_kw_138"
  "mozjs_kw_cases ! 139 = mozjs_kw_139"
  "mozjs_kw_cases ! 140 = mozjs_kw_140"
  "mozjs_kw_cases ! 141 = mozjs_kw_141"
  "mozjs_kw_cases ! 142 = mozjs_kw_142"
  "mozjs_kw_cases ! 143 = mozjs_kw_143"
  "mozjs_kw_cases ! 144 = mozjs_kw_144"
  "mozjs_kw_cases ! 145 = mozjs_kw_145"
  "mozjs_kw_cases ! 146 = mozjs_kw_146"
  "mozjs_kw_cases ! 147 = mozjs_kw_147"
  "mozjs_kw_cases ! 148 = mozjs_kw_148"
  "mozjs_kw_cases ! 149 = mozjs_kw_149"
  "mozjs_kw_cases ! 150 = mozjs_kw_150"
  "mozjs_kw_cases ! 151 = mozjs_kw_151"
  "mozjs_kw_cases ! 152 = mozjs_kw_152"
  "mozjs_kw_cases ! 153 = mozjs_kw_153"
  "mozjs_kw_cases ! 154 = mozjs_kw_154"
  "mozjs_kw_cases ! 155 = mozjs_kw_155"
  "mozjs_kw_cases ! 156 = mozjs_kw_156"
  "mozjs_kw_cases ! 157 = mozjs_kw_157"
  "mozjs_kw_cases ! 158 = mozjs_kw_158"
  "mozjs_kw_cases ! 159 = mozjs_kw_159"
  "mozjs_kw_cases ! 160 = mozjs_kw_160"
  "mozjs_kw_cases ! 161 = mozjs_kw_161"
  "mozjs_kw_cases ! 162 = mozjs_kw_162"
  "mozjs_kw_cases ! 163 = mozjs_kw_163"
  "mozjs_kw_cases ! 164 = mozjs_kw_164"
  "mozjs_kw_cases ! 165 = mozjs_kw_165"
  "mozjs_kw_cases ! 166 = mozjs_kw_166"
  "mozjs_kw_cases ! 167 = mozjs_kw_167"
  "mozjs_kw_cases ! 168 = mozjs_kw_168"
  "mozjs_kw_cases ! 169 = mozjs_kw_169"
  "mozjs_kw_cases ! 170 = mozjs_kw_170"
  "mozjs_kw_cases ! 171 = mozjs_kw_171"
  "mozjs_kw_cases ! 172 = mozjs_kw_172"
  "mozjs_kw_cases ! 173 = mozjs_kw_173"
  "mozjs_kw_cases ! 174 = mozjs_kw_174"
  "mozjs_kw_cases ! 175 = mozjs_kw_175"
  "mozjs_kw_cases ! 176 = mozjs_kw_176"
  "mozjs_kw_cases ! 177 = mozjs_kw_177"
  "mozjs_kw_cases ! 178 = mozjs_kw_178"
  "mozjs_kw_cases ! 179 = mozjs_kw_179"
  "mozjs_kw_cases ! 180 = mozjs_kw_180"
  "mozjs_kw_cases ! 181 = mozjs_kw_181"
  "mozjs_kw_cases ! 182 = mozjs_kw_182"
  "mozjs_kw_cases ! 183 = mozjs_kw_183"
  "mozjs_kw_cases ! 184 = mozjs_kw_184"
  "mozjs_kw_cases ! 185 = mozjs_kw_185"
  "mozjs_kw_cases ! 186 = mozjs_kw_186"
  "mozjs_kw_cases ! 187 = mozjs_kw_187"
  "mozjs_kw_cases ! 188 = mozjs_kw_188"
  "mozjs_kw_cases ! 189 = mozjs_kw_189"
  "mozjs_kw_cases ! 190 = mozjs_kw_190"
  "mozjs_kw_cases ! 191 = mozjs_kw_191"
  "mozjs_kw_cases ! 192 = mozjs_kw_192"
  "mozjs_kw_cases ! 193 = mozjs_kw_193"
  "mozjs_kw_cases ! 194 = mozjs_kw_194"
  "mozjs_kw_cases ! 195 = mozjs_kw_195"
  "mozjs_kw_cases ! 196 = mozjs_kw_196"
  "mozjs_kw_cases ! 197 = mozjs_kw_197"
  "mozjs_kw_cases ! 198 = mozjs_kw_198"
  "mozjs_kw_cases ! 199 = mozjs_kw_199"
  by (simp_all add: mozjs_kw_list)

section \<open>A text for each token\<close>

text \<open>
  The lexer finds the token on the text, or it finds an identifier and the keyword lexer the token.
\<close>

definition mozjs_sample_ok :: "TSStateId \<Rightarrow> TSSymbol \<Rightarrow> codepoint list \<Rightarrow> bool" where
  "mozjs_sample_ok m x w \<longleftrightarrow> munch mozjs_ts_lex m None w = Some (x, []) \<or>
     munch mozjs_ts_lex m None w = Some (mozjs_sym_identifier, []) \<and>
     munch mozjs_ts_lex_keywords 0 None w = Some (x, [])"

definition mozjs_words_12 :: "(TSSymbol \<times> codepoint list) list" where
  "mozjs_words_12 =
    [(mozjs_sym_comment, [CH_SLASH, CH_SLASH])]"

definition mozjs_words_13 :: "(TSSymbol \<times> codepoint list) list" where
  "mozjs_words_13 =
    [(mozjs_sym_identifier, [CH_DOLLAR]),
     (mozjs_anon_sym_export, [CH_e, CH_x, CH_p, CH_o, CH_r, CH_t]),
     (mozjs_anon_sym_STAR, [CH_STAR]),
     (mozjs_anon_sym_default, [CH_d, CH_e, CH_f, CH_a, CH_u, CH_l, CH_t]),
     (mozjs_anon_sym_LBRACE, [CH_LBRACE]),
     (mozjs_anon_sym_COMMA, [CH_COMMA]),
     (mozjs_anon_sym_RBRACE, [CH_RBRACE]),
     (mozjs_anon_sym_import, [CH_i, CH_m, CH_p, CH_o, CH_r, CH_t]),
     (mozjs_anon_sym_var, [CH_v, CH_a, CH_r]),
     (mozjs_anon_sym_let, [CH_l, CH_e, CH_t]),
     (mozjs_anon_sym_const, [CH_c, CH_o, CH_n, CH_s, CH_t]),
     (mozjs_anon_sym_using, [CH_u, CH_s, CH_i, CH_n, CH_g]),
     (mozjs_anon_sym_await, [CH_a, CH_w, CH_a, CH_i, CH_t]),
     (mozjs_anon_sym_of, [CH_o, CH_f]),
     (mozjs_anon_sym_LPAREN, [CH_LPAREN]),
     (mozjs_anon_sym_SEMI, [CH_SEMICOLON]),
     (mozjs_anon_sym_RPAREN, [CH_RPAREN]),
     (mozjs_anon_sym_in, [CH_i, CH_n]),
     (mozjs_anon_sym_COLON, [CH_COLON]),
     (mozjs_anon_sym_yield, [CH_y, CH_i, CH_e, CH_l, CH_d]),
     (mozjs_anon_sym_EQ, [CH_EQUALS]),
     (mozjs_anon_sym_LBRACK, [CH_LBRACKET]),
     (mozjs_anon_sym_RBRACK, [CH_RBRACKET]),
     (mozjs_anon_sym_LT, [CH_LT]),
     (mozjs_anon_sym_GT, [CH_GT]),
     (mozjs_anon_sym_DOT, [CH_DOT]),
     (mozjs_anon_sym_DQUOTE, [CH_DQUOTE]),
     (mozjs_anon_sym_SQUOTE, [CH_QUOTE]),
     (mozjs_anon_sym_class, [CH_c, CH_l, CH_a, CH_s, CH_s]),
     (mozjs_anon_sym_async, [CH_a, CH_s, CH_y, CH_n, CH_c]),
     (mozjs_anon_sym_function, [CH_f, CH_u, CH_n, CH_c, CH_t, CH_i, CH_o, CH_n]),
     (mozjs_anon_sym_EQ_GT, [CH_EQUALS, CH_GT]),
     (mozjs_sym_optional_chain, [CH_QMARK, CH_DOT]),
     (mozjs_anon_sym_new, [CH_n, CH_e, CH_w]),
     (mozjs_anon_sym_PLUS_EQ, [CH_PLUS, CH_EQUALS]),
     (mozjs_anon_sym_DASH_EQ, [CH_MINUS, CH_EQUALS]),
     (mozjs_anon_sym_STAR_EQ, [CH_STAR, CH_EQUALS]),
     (mozjs_anon_sym_SLASH_EQ, [CH_SLASH, CH_EQUALS]),
     (mozjs_anon_sym_PERCENT_EQ, [CH_PERCENT, CH_EQUALS]),
     (mozjs_anon_sym_CARET_EQ, [CH_CARET, CH_EQUALS]),
     (mozjs_anon_sym_AMP_EQ, [CH_AMP, CH_EQUALS]),
     (mozjs_anon_sym_PIPE_EQ, [CH_BAR, CH_EQUALS]),
     (mozjs_anon_sym_GT_GT_EQ, [CH_GT, CH_GT, CH_EQUALS]),
     (mozjs_anon_sym_GT_GT_GT_EQ, [CH_GT, CH_GT, CH_GT, CH_EQUALS]),
     (mozjs_anon_sym_LT_LT_EQ, [CH_LT, CH_LT, CH_EQUALS]),
     (mozjs_anon_sym_STAR_STAR_EQ, [CH_STAR, CH_STAR, CH_EQUALS]),
     (mozjs_anon_sym_AMP_AMP_EQ, [CH_AMP, CH_AMP, CH_EQUALS]),
     (mozjs_anon_sym_PIPE_PIPE_EQ, [CH_BAR, CH_BAR, CH_EQUALS]),
     (mozjs_anon_sym_QMARK_QMARK_EQ, [CH_QMARK, CH_QMARK, CH_EQUALS]),
     (mozjs_anon_sym_AMP_AMP, [CH_AMP, CH_AMP]),
     (mozjs_anon_sym_GT_GT, [CH_GT, CH_GT]),
     (mozjs_anon_sym_GT_GT_GT, [CH_GT, CH_GT, CH_GT]),
     (mozjs_anon_sym_LT_LT, [CH_LT, CH_LT]),
     (mozjs_anon_sym_AMP, [CH_AMP]),
     (mozjs_anon_sym_CARET, [CH_CARET]),
     (mozjs_anon_sym_PIPE, [CH_BAR]),
     (mozjs_anon_sym_PLUS, [CH_PLUS]),
     (mozjs_anon_sym_DASH, [CH_MINUS]),
     (mozjs_anon_sym_SLASH, [CH_SLASH]),
     (mozjs_anon_sym_PERCENT, [CH_PERCENT]),
     (mozjs_anon_sym_STAR_STAR, [CH_STAR, CH_STAR]),
     (mozjs_anon_sym_LT_EQ, [CH_LT, CH_EQUALS]),
     (mozjs_anon_sym_EQ_EQ, [CH_EQUALS, CH_EQUALS]),
     (mozjs_anon_sym_EQ_EQ_EQ, [CH_EQUALS, CH_EQUALS, CH_EQUALS]),
     (mozjs_anon_sym_BANG_EQ, [CH_BANG, CH_EQUALS]),
     (mozjs_anon_sym_BANG_EQ_EQ, [CH_BANG, CH_EQUALS, CH_EQUALS]),
     (mozjs_anon_sym_GT_EQ, [CH_GT, CH_EQUALS]),
     (mozjs_anon_sym_QMARK_QMARK, [CH_QMARK, CH_QMARK]),
     (mozjs_anon_sym_instanceof, [CH_i, CH_n, CH_s, CH_t, CH_a, CH_n, CH_c, CH_e, CH_o, CH_f]),
     (mozjs_anon_sym_BANG, [CH_BANG]),
     (mozjs_anon_sym_TILDE, [CH_TILDE]),
     (mozjs_anon_sym_typeof, [CH_t, CH_y, CH_p, CH_e, CH_o, CH_f]),
     (mozjs_anon_sym_void, [CH_v, CH_o, CH_i, CH_d]),
     (mozjs_anon_sym_delete, [CH_d, CH_e, CH_l, CH_e, CH_t, CH_e]),
     (mozjs_anon_sym_PLUS_PLUS, [CH_PLUS, CH_PLUS]),
     (mozjs_anon_sym_DASH_DASH, [CH_MINUS, CH_MINUS]),
     (mozjs_sym_comment, [CH_SLASH, CH_SLASH]),
     (mozjs_anon_sym_BQUOTE, [CH_BACKTICK]),
     (mozjs_sym_number, [CH_0]),
     (mozjs_sym_private_property_identifier, [CH_HASH, CH_DOLLAR]),
     (mozjs_sym_this, [CH_t, CH_h, CH_i, CH_s]),
     (mozjs_sym_super, [CH_s, CH_u, CH_p, CH_e, CH_r]),
     (mozjs_sym_true, [CH_t, CH_r, CH_u, CH_e]),
     (mozjs_sym_false, [CH_f, CH_a, CH_l, CH_s, CH_e]),
     (mozjs_sym_null, [CH_n, CH_u, CH_l, CH_l]),
     (mozjs_sym_undefined, [CH_u, CH_n, CH_d, CH_e, CH_f, CH_i, CH_n, CH_e, CH_d]),
     (mozjs_anon_sym_AT, [CH_AT]),
     (mozjs_anon_sym_static, [CH_s, CH_t, CH_a, CH_t, CH_i, CH_c]),
     (mozjs_anon_sym_get, [CH_g, CH_e, CH_t]),
     (mozjs_anon_sym_set, [CH_s, CH_e, CH_t])]"

definition mozjs_words_14 :: "(TSSymbol \<times> codepoint list) list" where
  "mozjs_words_14 =
    [(mozjs_sym_identifier, [CH_DOLLAR]),
     (mozjs_anon_sym_export, [CH_e, CH_x, CH_p, CH_o, CH_r, CH_t]),
     (mozjs_anon_sym_STAR, [CH_STAR]),
     (mozjs_anon_sym_LBRACE, [CH_LBRACE]),
     (mozjs_anon_sym_COMMA, [CH_COMMA]),
     (mozjs_anon_sym_RBRACE, [CH_RBRACE]),
     (mozjs_anon_sym_import, [CH_i, CH_m, CH_p, CH_o, CH_r, CH_t]),
     (mozjs_anon_sym_let, [CH_l, CH_e, CH_t]),
     (mozjs_anon_sym_await, [CH_a, CH_w, CH_a, CH_i, CH_t]),
     (mozjs_anon_sym_of, [CH_o, CH_f]),
     (mozjs_anon_sym_else, [CH_e, CH_l, CH_s, CH_e]),
     (mozjs_anon_sym_LPAREN, [CH_LPAREN]),
     (mozjs_anon_sym_SEMI, [CH_SEMICOLON]),
     (mozjs_anon_sym_RPAREN, [CH_RPAREN]),
     (mozjs_anon_sym_in, [CH_i, CH_n]),
     (mozjs_anon_sym_while, [CH_w, CH_h, CH_i, CH_l, CH_e]),
     (mozjs_anon_sym_COLON, [CH_COLON]),
     (mozjs_anon_sym_yield, [CH_y, CH_i, CH_e, CH_l, CH_d]),
     (mozjs_anon_sym_EQ, [CH_EQUALS]),
     (mozjs_anon_sym_LBRACK, [CH_LBRACKET]),
     (mozjs_anon_sym_RBRACK, [CH_RBRACKET]),
     (mozjs_anon_sym_LT, [CH_LT]),
     (mozjs_anon_sym_GT, [CH_GT]),
     (mozjs_anon_sym_DOT, [CH_DOT]),
     (mozjs_anon_sym_DQUOTE, [CH_DQUOTE]),
     (mozjs_anon_sym_SQUOTE, [CH_QUOTE]),
     (mozjs_anon_sym_class, [CH_c, CH_l, CH_a, CH_s, CH_s]),
     (mozjs_anon_sym_async, [CH_a, CH_s, CH_y, CH_n, CH_c]),
     (mozjs_anon_sym_function, [CH_f, CH_u, CH_n, CH_c, CH_t, CH_i, CH_o, CH_n]),
     (mozjs_sym_optional_chain, [CH_QMARK, CH_DOT]),
     (mozjs_anon_sym_new, [CH_n, CH_e, CH_w]),
     (mozjs_anon_sym_AMP_AMP, [CH_AMP, CH_AMP]),
     (mozjs_anon_sym_GT_GT, [CH_GT, CH_GT]),
     (mozjs_anon_sym_GT_GT_GT, [CH_GT, CH_GT, CH_GT]),
     (mozjs_anon_sym_LT_LT, [CH_LT, CH_LT]),
     (mozjs_anon_sym_AMP, [CH_AMP]),
     (mozjs_anon_sym_CARET, [CH_CARET]),
     (mozjs_anon_sym_PIPE, [CH_BAR]),
     (mozjs_anon_sym_PLUS, [CH_PLUS]),
     (mozjs_anon_sym_DASH, [CH_MINUS]),
     (mozjs_anon_sym_SLASH, [CH_SLASH]),
     (mozjs_anon_sym_PERCENT, [CH_PERCENT]),
     (mozjs_anon_sym_STAR_STAR, [CH_STAR, CH_STAR]),
     (mozjs_anon_sym_LT_EQ, [CH_LT, CH_EQUALS]),
     (mozjs_anon_sym_EQ_EQ, [CH_EQUALS, CH_EQUALS]),
     (mozjs_anon_sym_EQ_EQ_EQ, [CH_EQUALS, CH_EQUALS, CH_EQUALS]),
     (mozjs_anon_sym_BANG_EQ, [CH_BANG, CH_EQUALS]),
     (mozjs_anon_sym_BANG_EQ_EQ, [CH_BANG, CH_EQUALS, CH_EQUALS]),
     (mozjs_anon_sym_GT_EQ, [CH_GT, CH_EQUALS]),
     (mozjs_anon_sym_QMARK_QMARK, [CH_QMARK, CH_QMARK]),
     (mozjs_anon_sym_instanceof, [CH_i, CH_n, CH_s, CH_t, CH_a, CH_n, CH_c, CH_e, CH_o, CH_f]),
     (mozjs_anon_sym_BANG, [CH_BANG]),
     (mozjs_anon_sym_TILDE, [CH_TILDE]),
     (mozjs_anon_sym_typeof, [CH_t, CH_y, CH_p, CH_e, CH_o, CH_f]),
     (mozjs_anon_sym_void, [CH_v, CH_o, CH_i, CH_d]),
     (mozjs_anon_sym_delete, [CH_d, CH_e, CH_l, CH_e, CH_t, CH_e]),
     (mozjs_anon_sym_PLUS_PLUS, [CH_PLUS, CH_PLUS]),
     (mozjs_anon_sym_DASH_DASH, [CH_MINUS, CH_MINUS]),
     (mozjs_sym_comment, [CH_SLASH, CH_SLASH]),
     (mozjs_anon_sym_BQUOTE, [CH_BACKTICK]),
     (mozjs_sym_number, [CH_0]),
     (mozjs_sym_private_property_identifier, [CH_HASH, CH_DOLLAR]),
     (mozjs_sym_this, [CH_t, CH_h, CH_i, CH_s]),
     (mozjs_sym_super, [CH_s, CH_u, CH_p, CH_e, CH_r]),
     (mozjs_sym_true, [CH_t, CH_r, CH_u, CH_e]),
     (mozjs_sym_false, [CH_f, CH_a, CH_l, CH_s, CH_e]),
     (mozjs_sym_null, [CH_n, CH_u, CH_l, CH_l]),
     (mozjs_sym_undefined, [CH_u, CH_n, CH_d, CH_e, CH_f, CH_i, CH_n, CH_e, CH_d]),
     (mozjs_anon_sym_AT, [CH_AT]),
     (mozjs_anon_sym_static, [CH_s, CH_t, CH_a, CH_t, CH_i, CH_c]),
     (mozjs_anon_sym_get, [CH_g, CH_e, CH_t]),
     (mozjs_anon_sym_set, [CH_s, CH_e, CH_t])]"

definition mozjs_words_15 :: "(TSSymbol \<times> codepoint list) list" where
  "mozjs_words_15 =
    [(mozjs_sym_identifier, [CH_DOLLAR]),
     (mozjs_anon_sym_export, [CH_e, CH_x, CH_p, CH_o, CH_r, CH_t]),
     (mozjs_anon_sym_STAR, [CH_STAR]),
     (mozjs_anon_sym_LBRACE, [CH_LBRACE]),
     (mozjs_anon_sym_COMMA, [CH_COMMA]),
     (mozjs_anon_sym_RBRACE, [CH_RBRACE]),
     (mozjs_anon_sym_import, [CH_i, CH_m, CH_p, CH_o, CH_r, CH_t]),
     (mozjs_anon_sym_with, [CH_w, CH_i, CH_t, CH_h]),
     (mozjs_anon_sym_var, [CH_v, CH_a, CH_r]),
     (mozjs_anon_sym_let, [CH_l, CH_e, CH_t]),
     (mozjs_anon_sym_const, [CH_c, CH_o, CH_n, CH_s, CH_t]),
     (mozjs_anon_sym_using, [CH_u, CH_s, CH_i, CH_n, CH_g]),
     (mozjs_anon_sym_await, [CH_a, CH_w, CH_a, CH_i, CH_t]),
     (mozjs_anon_sym_if, [CH_i, CH_f]),
     (mozjs_anon_sym_switch, [CH_s, CH_w, CH_i, CH_t, CH_c, CH_h]),
     (mozjs_anon_sym_for, [CH_f, CH_o, CH_r]),
     (mozjs_anon_sym_LPAREN, [CH_LPAREN]),
     (mozjs_anon_sym_SEMI, [CH_SEMICOLON]),
     (mozjs_anon_sym_while, [CH_w, CH_h, CH_i, CH_l, CH_e]),
     (mozjs_anon_sym_do, [CH_d, CH_o]),
     (mozjs_anon_sym_try, [CH_t, CH_r, CH_y]),
     (mozjs_anon_sym_break, [CH_b, CH_r, CH_e, CH_a, CH_k]),
     (mozjs_anon_sym_continue, [CH_c, CH_o, CH_n, CH_t, CH_i, CH_n, CH_u, CH_e]),
     (mozjs_anon_sym_debugger, [CH_d, CH_e, CH_b, CH_u, CH_g, CH_g, CH_e, CH_r]),
     (mozjs_anon_sym_return, [CH_r, CH_e, CH_t, CH_u, CH_r, CH_n]),
     (mozjs_anon_sym_throw, [CH_t, CH_h, CH_r, CH_o, CH_w]),
     (mozjs_anon_sym_yield, [CH_y, CH_i, CH_e, CH_l, CH_d]),
     (mozjs_anon_sym_LBRACK, [CH_LBRACKET]),
     (mozjs_anon_sym_LT, [CH_LT]),
     (mozjs_anon_sym_DQUOTE, [CH_DQUOTE]),
     (mozjs_anon_sym_SQUOTE, [CH_QUOTE]),
     (mozjs_anon_sym_class, [CH_c, CH_l, CH_a, CH_s, CH_s]),
     (mozjs_anon_sym_async, [CH_a, CH_s, CH_y, CH_n, CH_c]),
     (mozjs_anon_sym_function, [CH_f, CH_u, CH_n, CH_c, CH_t, CH_i, CH_o, CH_n]),
     (mozjs_anon_sym_new, [CH_n, CH_e, CH_w]),
     (mozjs_anon_sym_DOT_DOT_DOT, [CH_DOT, CH_DOT, CH_DOT]),
     (mozjs_anon_sym_PLUS, [CH_PLUS]),
     (mozjs_anon_sym_DASH, [CH_MINUS]),
     (mozjs_anon_sym_SLASH, [CH_SLASH]),
     (mozjs_anon_sym_BANG, [CH_BANG]),
     (mozjs_anon_sym_TILDE, [CH_TILDE]),
     (mozjs_anon_sym_typeof, [CH_t, CH_y, CH_p, CH_e, CH_o, CH_f]),
     (mozjs_anon_sym_void, [CH_v, CH_o, CH_i, CH_d]),
     (mozjs_anon_sym_delete, [CH_d, CH_e, CH_l, CH_e, CH_t, CH_e]),
     (mozjs_anon_sym_PLUS_PLUS, [CH_PLUS, CH_PLUS]),
     (mozjs_anon_sym_DASH_DASH, [CH_MINUS, CH_MINUS]),
     (mozjs_sym_comment, [CH_SLASH, CH_SLASH]),
     (mozjs_anon_sym_BQUOTE, [CH_BACKTICK]),
     (mozjs_sym_number, [CH_0]),
     (mozjs_sym_private_property_identifier, [CH_HASH, CH_DOLLAR]),
     (mozjs_sym_this, [CH_t, CH_h, CH_i, CH_s]),
     (mozjs_sym_super, [CH_s, CH_u, CH_p, CH_e, CH_r]),
     (mozjs_sym_true, [CH_t, CH_r, CH_u, CH_e]),
     (mozjs_sym_false, [CH_f, CH_a, CH_l, CH_s, CH_e]),
     (mozjs_sym_null, [CH_n, CH_u, CH_l, CH_l]),
     (mozjs_sym_undefined, [CH_u, CH_n, CH_d, CH_e, CH_f, CH_i, CH_n, CH_e, CH_d]),
     (mozjs_anon_sym_AT, [CH_AT]),
     (mozjs_anon_sym_static, [CH_s, CH_t, CH_a, CH_t, CH_i, CH_c]),
     (mozjs_aux_sym_method_definition_token1, [CH_s, CH_t, CH_a, CH_t, CH_i, CH_c, CH_TAB, CH_g,
       CH_e, CH_t, CH_LF]),
     (mozjs_anon_sym_get, [CH_g, CH_e, CH_t]),
     (mozjs_anon_sym_set, [CH_s, CH_e, CH_t]),
     (mozjs_sym_preproc, [CH_HASH, CH_LF])]"

definition mozjs_words_16 :: "(TSSymbol \<times> codepoint list) list" where
  "mozjs_words_16 =
    [(mozjs_sym_identifier, [CH_DOLLAR]),
     (mozjs_anon_sym_export, [CH_e, CH_x, CH_p, CH_o, CH_r, CH_t]),
     (mozjs_anon_sym_LBRACE, [CH_LBRACE]),
     (mozjs_anon_sym_COMMA, [CH_COMMA]),
     (mozjs_anon_sym_RBRACE, [CH_RBRACE]),
     (mozjs_anon_sym_import, [CH_i, CH_m, CH_p, CH_o, CH_r, CH_t]),
     (mozjs_anon_sym_var, [CH_v, CH_a, CH_r]),
     (mozjs_anon_sym_let, [CH_l, CH_e, CH_t]),
     (mozjs_anon_sym_const, [CH_c, CH_o, CH_n, CH_s, CH_t]),
     (mozjs_anon_sym_using, [CH_u, CH_s, CH_i, CH_n, CH_g]),
     (mozjs_anon_sym_await, [CH_a, CH_w, CH_a, CH_i, CH_t]),
     (mozjs_anon_sym_of, [CH_o, CH_f]),
     (mozjs_anon_sym_LPAREN, [CH_LPAREN]),
     (mozjs_anon_sym_SEMI, [CH_SEMICOLON]),
     (mozjs_anon_sym_RPAREN, [CH_RPAREN]),
     (mozjs_anon_sym_in, [CH_i, CH_n]),
     (mozjs_anon_sym_yield, [CH_y, CH_i, CH_e, CH_l, CH_d]),
     (mozjs_anon_sym_EQ, [CH_EQUALS]),
     (mozjs_anon_sym_LBRACK, [CH_LBRACKET]),
     (mozjs_anon_sym_RBRACK, [CH_RBRACKET]),
     (mozjs_anon_sym_LT, [CH_LT]),
     (mozjs_anon_sym_DQUOTE, [CH_DQUOTE]),
     (mozjs_anon_sym_SQUOTE, [CH_QUOTE]),
     (mozjs_anon_sym_class, [CH_c, CH_l, CH_a, CH_s, CH_s]),
     (mozjs_anon_sym_async, [CH_a, CH_s, CH_y, CH_n, CH_c]),
     (mozjs_anon_sym_function, [CH_f, CH_u, CH_n, CH_c, CH_t, CH_i, CH_o, CH_n]),
     (mozjs_anon_sym_new, [CH_n, CH_e, CH_w]),
     (mozjs_anon_sym_DOT_DOT_DOT, [CH_DOT, CH_DOT, CH_DOT]),
     (mozjs_anon_sym_PLUS, [CH_PLUS]),
     (mozjs_anon_sym_DASH, [CH_MINUS]),
     (mozjs_anon_sym_SLASH, [CH_SLASH]),
     (mozjs_anon_sym_BANG, [CH_BANG]),
     (mozjs_anon_sym_TILDE, [CH_TILDE]),
     (mozjs_anon_sym_typeof, [CH_t, CH_y, CH_p, CH_e, CH_o, CH_f]),
     (mozjs_anon_sym_void, [CH_v, CH_o, CH_i, CH_d]),
     (mozjs_anon_sym_delete, [CH_d, CH_e, CH_l, CH_e, CH_t, CH_e]),
     (mozjs_anon_sym_PLUS_PLUS, [CH_PLUS, CH_PLUS]),
     (mozjs_anon_sym_DASH_DASH, [CH_MINUS, CH_MINUS]),
     (mozjs_sym_comment, [CH_SLASH, CH_SLASH]),
     (mozjs_anon_sym_BQUOTE, [CH_BACKTICK]),
     (mozjs_sym_number, [CH_0]),
     (mozjs_sym_private_property_identifier, [CH_HASH, CH_DOLLAR]),
     (mozjs_sym_this, [CH_t, CH_h, CH_i, CH_s]),
     (mozjs_sym_super, [CH_s, CH_u, CH_p, CH_e, CH_r]),
     (mozjs_sym_true, [CH_t, CH_r, CH_u, CH_e]),
     (mozjs_sym_false, [CH_f, CH_a, CH_l, CH_s, CH_e]),
     (mozjs_sym_null, [CH_n, CH_u, CH_l, CH_l]),
     (mozjs_sym_undefined, [CH_u, CH_n, CH_d, CH_e, CH_f, CH_i, CH_n, CH_e, CH_d]),
     (mozjs_anon_sym_AT, [CH_AT]),
     (mozjs_anon_sym_static, [CH_s, CH_t, CH_a, CH_t, CH_i, CH_c]),
     (mozjs_anon_sym_get, [CH_g, CH_e, CH_t]),
     (mozjs_anon_sym_set, [CH_s, CH_e, CH_t])]"

definition mozjs_words_17 :: "(TSSymbol \<times> codepoint list) list" where
  "mozjs_words_17 =
    [(mozjs_sym_identifier, [CH_DOLLAR]),
     (mozjs_anon_sym_export, [CH_e, CH_x, CH_p, CH_o, CH_r, CH_t]),
     (mozjs_anon_sym_LBRACE, [CH_LBRACE]),
     (mozjs_anon_sym_import, [CH_i, CH_m, CH_p, CH_o, CH_r, CH_t]),
     (mozjs_anon_sym_let, [CH_l, CH_e, CH_t]),
     (mozjs_anon_sym_await, [CH_a, CH_w, CH_a, CH_i, CH_t]),
     (mozjs_anon_sym_LPAREN, [CH_LPAREN]),
     (mozjs_anon_sym_yield, [CH_y, CH_i, CH_e, CH_l, CH_d]),
     (mozjs_anon_sym_LBRACK, [CH_LBRACKET]),
     (mozjs_anon_sym_LT, [CH_LT]),
     (mozjs_anon_sym_DOT, [CH_DOT]),
     (mozjs_anon_sym_DQUOTE, [CH_DQUOTE]),
     (mozjs_anon_sym_SQUOTE, [CH_QUOTE]),
     (mozjs_anon_sym_class, [CH_c, CH_l, CH_a, CH_s, CH_s]),
     (mozjs_anon_sym_async, [CH_a, CH_s, CH_y, CH_n, CH_c]),
     (mozjs_anon_sym_function, [CH_f, CH_u, CH_n, CH_c, CH_t, CH_i, CH_o, CH_n]),
     (mozjs_anon_sym_new, [CH_n, CH_e, CH_w]),
     (mozjs_anon_sym_PLUS, [CH_PLUS]),
     (mozjs_anon_sym_DASH, [CH_MINUS]),
     (mozjs_anon_sym_SLASH, [CH_SLASH]),
     (mozjs_anon_sym_BANG, [CH_BANG]),
     (mozjs_anon_sym_TILDE, [CH_TILDE]),
     (mozjs_anon_sym_typeof, [CH_t, CH_y, CH_p, CH_e, CH_o, CH_f]),
     (mozjs_anon_sym_void, [CH_v, CH_o, CH_i, CH_d]),
     (mozjs_anon_sym_delete, [CH_d, CH_e, CH_l, CH_e, CH_t, CH_e]),
     (mozjs_anon_sym_PLUS_PLUS, [CH_PLUS, CH_PLUS]),
     (mozjs_anon_sym_DASH_DASH, [CH_MINUS, CH_MINUS]),
     (mozjs_sym_comment, [CH_SLASH, CH_SLASH]),
     (mozjs_anon_sym_BQUOTE, [CH_BACKTICK]),
     (mozjs_sym_number, [CH_0]),
     (mozjs_sym_private_property_identifier, [CH_HASH, CH_DOLLAR]),
     (mozjs_sym_this, [CH_t, CH_h, CH_i, CH_s]),
     (mozjs_sym_super, [CH_s, CH_u, CH_p, CH_e, CH_r]),
     (mozjs_sym_true, [CH_t, CH_r, CH_u, CH_e]),
     (mozjs_sym_false, [CH_f, CH_a, CH_l, CH_s, CH_e]),
     (mozjs_sym_null, [CH_n, CH_u, CH_l, CH_l]),
     (mozjs_sym_undefined, [CH_u, CH_n, CH_d, CH_e, CH_f, CH_i, CH_n, CH_e, CH_d]),
     (mozjs_anon_sym_AT, [CH_AT]),
     (mozjs_anon_sym_static, [CH_s, CH_t, CH_a, CH_t, CH_i, CH_c]),
     (mozjs_anon_sym_get, [CH_g, CH_e, CH_t]),
     (mozjs_anon_sym_set, [CH_s, CH_e, CH_t])]"

definition mozjs_words_18 :: "(TSSymbol \<times> codepoint list) list" where
  "mozjs_words_18 =
    [(mozjs_anon_sym_STAR, [CH_STAR]),
     (mozjs_anon_sym_LBRACE, [CH_LBRACE]),
     (mozjs_anon_sym_COMMA, [CH_COMMA]),
     (mozjs_anon_sym_RBRACE, [CH_RBRACE]),
     (mozjs_anon_sym_of, [CH_SPACE, CH_o, CH_f]),
     (mozjs_anon_sym_LPAREN, [CH_LPAREN]),
     (mozjs_anon_sym_SEMI, [CH_SEMICOLON]),
     (mozjs_anon_sym_RPAREN, [CH_RPAREN]),
     (mozjs_anon_sym_in, [CH_SPACE, CH_i, CH_n]),
     (mozjs_anon_sym_COLON, [CH_COLON]),
     (mozjs_anon_sym_LBRACK, [CH_LBRACKET]),
     (mozjs_anon_sym_RBRACK, [CH_RBRACKET]),
     (mozjs_anon_sym_LT, [CH_LT]),
     (mozjs_anon_sym_GT, [CH_GT]),
     (mozjs_anon_sym_DOT, [CH_DOT]),
     (mozjs_sym_optional_chain, [CH_QMARK, CH_DOT]),
     (mozjs_anon_sym_AMP_AMP, [CH_AMP, CH_AMP]),
     (mozjs_anon_sym_GT_GT, [CH_GT, CH_GT]),
     (mozjs_anon_sym_GT_GT_GT, [CH_GT, CH_GT, CH_GT]),
     (mozjs_anon_sym_LT_LT, [CH_LT, CH_LT]),
     (mozjs_anon_sym_AMP, [CH_AMP]),
     (mozjs_anon_sym_CARET, [CH_CARET]),
     (mozjs_anon_sym_PIPE, [CH_BAR]),
     (mozjs_anon_sym_PLUS, [CH_PLUS]),
     (mozjs_anon_sym_DASH, [CH_MINUS]),
     (mozjs_anon_sym_SLASH, [CH_SLASH]),
     (mozjs_anon_sym_PERCENT, [CH_PERCENT]),
     (mozjs_anon_sym_STAR_STAR, [CH_STAR, CH_STAR]),
     (mozjs_anon_sym_LT_EQ, [CH_LT, CH_EQUALS]),
     (mozjs_anon_sym_EQ_EQ, [CH_EQUALS, CH_EQUALS]),
     (mozjs_anon_sym_EQ_EQ_EQ, [CH_EQUALS, CH_EQUALS, CH_EQUALS]),
     (mozjs_anon_sym_BANG_EQ, [CH_BANG, CH_EQUALS]),
     (mozjs_anon_sym_BANG_EQ_EQ, [CH_BANG, CH_EQUALS, CH_EQUALS]),
     (mozjs_anon_sym_GT_EQ, [CH_GT, CH_EQUALS]),
     (mozjs_anon_sym_QMARK_QMARK, [CH_QMARK, CH_QMARK]),
     (mozjs_anon_sym_instanceof, [CH_SPACE, CH_i, CH_n, CH_s, CH_t, CH_a, CH_n, CH_c, CH_e, CH_o,
       CH_f]),
     (mozjs_anon_sym_PLUS_PLUS, [CH_PLUS, CH_PLUS]),
     (mozjs_anon_sym_DASH_DASH, [CH_MINUS, CH_MINUS]),
     (mozjs_sym_comment, [CH_SLASH, CH_SLASH]),
     (mozjs_anon_sym_BQUOTE, [CH_BACKTICK]),
     (mozjs_sym_regex_flags, [CH_a])]"

definition mozjs_words_20 :: "(TSSymbol \<times> codepoint list) list" where
  "mozjs_words_20 =
    [(mozjs_sym_identifier, [CH_DOLLAR]),
     (mozjs_anon_sym_export, [CH_e, CH_x, CH_p, CH_o, CH_r, CH_t]),
     (mozjs_anon_sym_STAR, [CH_STAR]),
     (mozjs_anon_sym_LBRACE, [CH_LBRACE]),
     (mozjs_anon_sym_COMMA, [CH_COMMA]),
     (mozjs_anon_sym_RBRACE, [CH_RBRACE]),
     (mozjs_anon_sym_let, [CH_l, CH_e, CH_t]),
     (mozjs_anon_sym_await, [CH_a, CH_w, CH_a, CH_i, CH_t]),
     (mozjs_anon_sym_SEMI, [CH_SEMICOLON]),
     (mozjs_anon_sym_LBRACK, [CH_LBRACKET]),
     (mozjs_sym_html_character_reference, [CH_AMP, CH_A, CH_SEMICOLON]),
     (mozjs_anon_sym_LT, [CH_LT]),
     (mozjs_anon_sym_LT_SLASH, [CH_LT, CH_SLASH]),
     (mozjs_anon_sym_DQUOTE, [CH_DQUOTE]),
     (mozjs_anon_sym_SQUOTE, [CH_QUOTE]),
     (mozjs_anon_sym_class, [CH_c, CH_l, CH_a, CH_s, CH_s]),
     (mozjs_anon_sym_async, [CH_a, CH_s, CH_y, CH_n, CH_c]),
     (mozjs_anon_sym_DOT_DOT_DOT, [CH_DOT, CH_DOT, CH_DOT]),
     (mozjs_sym_comment, [CH_SLASH, CH_SLASH]),
     (mozjs_sym_number, [CH_0]),
     (mozjs_sym_private_property_identifier, [CH_HASH, CH_DOLLAR]),
     (mozjs_anon_sym_AT, [CH_AT]),
     (mozjs_anon_sym_static, [CH_s, CH_t, CH_a, CH_t, CH_i, CH_c]),
     (mozjs_aux_sym_method_definition_token1, [CH_s, CH_t, CH_a, CH_t, CH_i, CH_c, CH_TAB, CH_g,
       CH_e, CH_t, CH_LF]),
     (mozjs_anon_sym_get, [CH_g, CH_e, CH_t]),
     (mozjs_anon_sym_set, [CH_s, CH_e, CH_t])]"

definition mozjs_words_21 :: "(TSSymbol \<times> codepoint list) list" where
  "mozjs_words_21 =
    [(mozjs_sym_identifier, [CH_DOLLAR]),
     (mozjs_anon_sym_export, [CH_e, CH_x, CH_p, CH_o, CH_r, CH_t]),
     (mozjs_anon_sym_STAR, [CH_STAR]),
     (mozjs_anon_sym_let, [CH_l, CH_e, CH_t]),
     (mozjs_anon_sym_await, [CH_a, CH_w, CH_a, CH_i, CH_t]),
     (mozjs_anon_sym_LPAREN, [CH_LPAREN]),
     (mozjs_anon_sym_LBRACK, [CH_LBRACKET]),
     (mozjs_anon_sym_DOT, [CH_DOT]),
     (mozjs_anon_sym_DQUOTE, [CH_DQUOTE]),
     (mozjs_anon_sym_SQUOTE, [CH_QUOTE]),
     (mozjs_anon_sym_class, [CH_c, CH_l, CH_a, CH_s, CH_s]),
     (mozjs_anon_sym_async, [CH_a, CH_s, CH_y, CH_n, CH_c]),
     (mozjs_sym_comment, [CH_SLASH, CH_SLASH]),
     (mozjs_sym_number, [CH_0]),
     (mozjs_sym_private_property_identifier, [CH_HASH, CH_DOLLAR]),
     (mozjs_anon_sym_AT, [CH_AT]),
     (mozjs_anon_sym_static, [CH_s, CH_t, CH_a, CH_t, CH_i, CH_c]),
     (mozjs_aux_sym_method_definition_token1, [CH_s, CH_t, CH_a, CH_t, CH_i, CH_c, CH_TAB, CH_g,
       CH_e, CH_t, CH_LF]),
     (mozjs_anon_sym_get, [CH_g, CH_e, CH_t]),
     (mozjs_anon_sym_set, [CH_s, CH_e, CH_t])]"

definition mozjs_words_22 :: "(TSSymbol \<times> codepoint list) list" where
  "mozjs_words_22 =
    [(mozjs_sym_html_character_reference, [CH_AMP, CH_A, CH_SEMICOLON]),
     (mozjs_anon_sym_DQUOTE, [CH_DQUOTE]),
     (mozjs_sym_unescaped_double_jsx_string_fragment, [1]),
     (mozjs_sym_comment, [CH_SLASH, CH_SLASH, CH_AMP])]"

definition mozjs_words_24 :: "(TSSymbol \<times> codepoint list) list" where
  "mozjs_words_24 =
    [(mozjs_anon_sym_DQUOTE, [CH_DQUOTE]),
     (mozjs_sym_unescaped_double_string_fragment, [1]),
     (mozjs_sym_comment, [CH_LF, CH_SLASH, CH_SLASH])]"

definition mozjs_words_28 :: "(TSSymbol \<times> codepoint list) list" where
  "mozjs_words_28 =
    [(mozjs_sym_comment, [CH_SLASH, CH_SLASH]),
     (mozjs_anon_sym_BQUOTE, [CH_BACKTICK]),
     (mozjs_anon_sym_DOLLAR_LBRACE, [CH_DOLLAR, CH_LBRACE])]"

definition mozjs_words_30 :: "(TSSymbol \<times> codepoint list) list" where
  "mozjs_words_30 =
    [(mozjs_sym_html_character_reference, [CH_AMP, CH_A, CH_SEMICOLON]),
     (mozjs_anon_sym_SQUOTE, [CH_QUOTE]),
     (mozjs_sym_unescaped_single_jsx_string_fragment, [1]),
     (mozjs_sym_comment, [CH_SLASH, CH_SLASH, CH_AMP])]"

definition mozjs_words_32 :: "(TSSymbol \<times> codepoint list) list" where
  "mozjs_words_32 =
    [(mozjs_anon_sym_SQUOTE, [CH_QUOTE]),
     (mozjs_sym_unescaped_single_string_fragment, [1]),
     (mozjs_sym_comment, [CH_LF, CH_SLASH, CH_SLASH])]"

definition mozjs_words_44 :: "(TSSymbol \<times> codepoint list) list" where
  "mozjs_words_44 =
    [(mozjs_sym_identifier, [CH_DOLLAR]),
     (mozjs_anon_sym_LBRACE, [CH_LBRACE]),
     (mozjs_anon_sym_COLON, [CH_COLON]),
     (mozjs_anon_sym_EQ, [CH_EQUALS]),
     (mozjs_anon_sym_GT, [CH_GT]),
     (mozjs_sym_jsx_identifier, [CH_DOLLAR, CH_MINUS]),
     (mozjs_anon_sym_DOT, [CH_DOT]),
     (mozjs_anon_sym_SLASH_GT, [CH_SLASH, CH_GT]),
     (mozjs_sym_comment, [CH_SLASH, CH_SLASH])]"

definition mozjs_words_45 :: "(TSSymbol \<times> codepoint list) list" where
  "mozjs_words_45 =
    [(mozjs_sym_comment, [CH_TAB, CH_SLASH, CH_SLASH]),
     (mozjs_anon_sym_SLASH2, [CH_SLASH])]"

definition mozjs_words_137 :: "(TSSymbol \<times> codepoint list) list" where
  "mozjs_words_137 =
    [(ts_builtin_sym_end, []),
     (mozjs_sym_identifier, [CH_DOLLAR]),
     (mozjs_anon_sym_export, [CH_e, CH_x, CH_p, CH_o, CH_r, CH_t]),
     (mozjs_anon_sym_STAR, [CH_STAR]),
     (mozjs_anon_sym_default, [CH_d, CH_e, CH_f, CH_a, CH_u, CH_l, CH_t]),
     (mozjs_anon_sym_LBRACE, [CH_LBRACE]),
     (mozjs_anon_sym_COMMA, [CH_COMMA]),
     (mozjs_anon_sym_RBRACE, [CH_RBRACE]),
     (mozjs_anon_sym_import, [CH_i, CH_m, CH_p, CH_o, CH_r, CH_t]),
     (mozjs_anon_sym_with, [CH_w, CH_i, CH_t, CH_h]),
     (mozjs_anon_sym_var, [CH_v, CH_a, CH_r]),
     (mozjs_anon_sym_let, [CH_l, CH_e, CH_t]),
     (mozjs_anon_sym_const, [CH_c, CH_o, CH_n, CH_s, CH_t]),
     (mozjs_anon_sym_using, [CH_u, CH_s, CH_i, CH_n, CH_g]),
     (mozjs_anon_sym_await, [CH_a, CH_w, CH_a, CH_i, CH_t]),
     (mozjs_anon_sym_of, [CH_o, CH_f]),
     (mozjs_anon_sym_else, [CH_e, CH_l, CH_s, CH_e]),
     (mozjs_anon_sym_if, [CH_i, CH_f]),
     (mozjs_anon_sym_switch, [CH_s, CH_w, CH_i, CH_t, CH_c, CH_h]),
     (mozjs_anon_sym_for, [CH_f, CH_o, CH_r]),
     (mozjs_anon_sym_LPAREN, [CH_LPAREN]),
     (mozjs_anon_sym_SEMI, [CH_SEMICOLON]),
     (mozjs_anon_sym_in, [CH_i, CH_n]),
     (mozjs_anon_sym_while, [CH_w, CH_h, CH_i, CH_l, CH_e]),
     (mozjs_anon_sym_do, [CH_d, CH_o]),
     (mozjs_anon_sym_try, [CH_t, CH_r, CH_y]),
     (mozjs_anon_sym_break, [CH_b, CH_r, CH_e, CH_a, CH_k]),
     (mozjs_anon_sym_continue, [CH_c, CH_o, CH_n, CH_t, CH_i, CH_n, CH_u, CH_e]),
     (mozjs_anon_sym_debugger, [CH_d, CH_e, CH_b, CH_u, CH_g, CH_g, CH_e, CH_r]),
     (mozjs_anon_sym_return, [CH_r, CH_e, CH_t, CH_u, CH_r, CH_n]),
     (mozjs_anon_sym_throw, [CH_t, CH_h, CH_r, CH_o, CH_w]),
     (mozjs_anon_sym_case, [CH_c, CH_a, CH_s, CH_e]),
     (mozjs_anon_sym_yield, [CH_y, CH_i, CH_e, CH_l, CH_d]),
     (mozjs_anon_sym_EQ, [CH_EQUALS]),
     (mozjs_anon_sym_LBRACK, [CH_LBRACKET]),
     (mozjs_anon_sym_LT, [CH_LT]),
     (mozjs_anon_sym_GT, [CH_GT]),
     (mozjs_anon_sym_DOT, [CH_DOT]),
     (mozjs_anon_sym_DQUOTE, [CH_DQUOTE]),
     (mozjs_anon_sym_SQUOTE, [CH_QUOTE]),
     (mozjs_anon_sym_class, [CH_c, CH_l, CH_a, CH_s, CH_s]),
     (mozjs_anon_sym_async, [CH_a, CH_s, CH_y, CH_n, CH_c]),
     (mozjs_anon_sym_function, [CH_f, CH_u, CH_n, CH_c, CH_t, CH_i, CH_o, CH_n]),
     (mozjs_sym_optional_chain, [CH_QMARK, CH_DOT]),
     (mozjs_anon_sym_new, [CH_n, CH_e, CH_w]),
     (mozjs_anon_sym_AMP_AMP, [CH_AMP, CH_AMP]),
     (mozjs_anon_sym_GT_GT, [CH_GT, CH_GT]),
     (mozjs_anon_sym_GT_GT_GT, [CH_GT, CH_GT, CH_GT]),
     (mozjs_anon_sym_LT_LT, [CH_LT, CH_LT]),
     (mozjs_anon_sym_AMP, [CH_AMP]),
     (mozjs_anon_sym_CARET, [CH_CARET]),
     (mozjs_anon_sym_PIPE, [CH_BAR]),
     (mozjs_anon_sym_PLUS, [CH_PLUS]),
     (mozjs_anon_sym_DASH, [CH_MINUS]),
     (mozjs_anon_sym_SLASH, [CH_SLASH]),
     (mozjs_anon_sym_PERCENT, [CH_PERCENT]),
     (mozjs_anon_sym_STAR_STAR, [CH_STAR, CH_STAR]),
     (mozjs_anon_sym_LT_EQ, [CH_LT, CH_EQUALS]),
     (mozjs_anon_sym_EQ_EQ, [CH_EQUALS, CH_EQUALS]),
     (mozjs_anon_sym_EQ_EQ_EQ, [CH_EQUALS, CH_EQUALS, CH_EQUALS]),
     (mozjs_anon_sym_BANG_EQ, [CH_BANG, CH_EQUALS]),
     (mozjs_anon_sym_BANG_EQ_EQ, [CH_BANG, CH_EQUALS, CH_EQUALS]),
     (mozjs_anon_sym_GT_EQ, [CH_GT, CH_EQUALS]),
     (mozjs_anon_sym_QMARK_QMARK, [CH_QMARK, CH_QMARK]),
     (mozjs_anon_sym_instanceof, [CH_i, CH_n, CH_s, CH_t, CH_a, CH_n, CH_c, CH_e, CH_o, CH_f]),
     (mozjs_anon_sym_BANG, [CH_BANG]),
     (mozjs_anon_sym_TILDE, [CH_TILDE]),
     (mozjs_anon_sym_typeof, [CH_t, CH_y, CH_p, CH_e, CH_o, CH_f]),
     (mozjs_anon_sym_void, [CH_v, CH_o, CH_i, CH_d]),
     (mozjs_anon_sym_delete, [CH_d, CH_e, CH_l, CH_e, CH_t, CH_e]),
     (mozjs_anon_sym_PLUS_PLUS, [CH_PLUS, CH_PLUS]),
     (mozjs_anon_sym_DASH_DASH, [CH_MINUS, CH_MINUS]),
     (mozjs_sym_comment, [CH_SLASH, CH_SLASH]),
     (mozjs_anon_sym_BQUOTE, [CH_BACKTICK]),
     (mozjs_sym_number, [CH_0]),
     (mozjs_sym_private_property_identifier, [CH_HASH, CH_DOLLAR]),
     (mozjs_sym_this, [CH_t, CH_h, CH_i, CH_s]),
     (mozjs_sym_super, [CH_s, CH_u, CH_p, CH_e, CH_r]),
     (mozjs_sym_true, [CH_t, CH_r, CH_u, CH_e]),
     (mozjs_sym_false, [CH_f, CH_a, CH_l, CH_s, CH_e]),
     (mozjs_sym_null, [CH_n, CH_u, CH_l, CH_l]),
     (mozjs_sym_undefined, [CH_u, CH_n, CH_d, CH_e, CH_f, CH_i, CH_n, CH_e, CH_d]),
     (mozjs_anon_sym_AT, [CH_AT]),
     (mozjs_anon_sym_static, [CH_s, CH_t, CH_a, CH_t, CH_i, CH_c]),
     (mozjs_anon_sym_get, [CH_g, CH_e, CH_t]),
     (mozjs_anon_sym_set, [CH_s, CH_e, CH_t]),
     (mozjs_sym_preproc, [CH_HASH, CH_LF])]"

definition mozjs_words_138 :: "(TSSymbol \<times> codepoint list) list" where
  "mozjs_words_138 =
    [(ts_builtin_sym_end, []),
     (mozjs_sym_identifier, [CH_DOLLAR]),
     (mozjs_sym_hash_bang_line, [CH_HASH, CH_BANG]),
     (mozjs_anon_sym_export, [CH_e, CH_x, CH_p, CH_o, CH_r, CH_t]),
     (mozjs_anon_sym_STAR, [CH_STAR]),
     (mozjs_anon_sym_default, [CH_d, CH_e, CH_f, CH_a, CH_u, CH_l, CH_t]),
     (mozjs_anon_sym_as, [CH_a, CH_s]),
     (mozjs_anon_sym_LBRACE, [CH_LBRACE]),
     (mozjs_anon_sym_COMMA, [CH_COMMA]),
     (mozjs_anon_sym_RBRACE, [CH_RBRACE]),
     (mozjs_anon_sym_import, [CH_i, CH_m, CH_p, CH_o, CH_r, CH_t]),
     (mozjs_anon_sym_from, [CH_f, CH_r, CH_o, CH_m]),
     (mozjs_anon_sym_with, [CH_w, CH_i, CH_t, CH_h]),
     (mozjs_anon_sym_var, [CH_v, CH_a, CH_r]),
     (mozjs_anon_sym_let, [CH_l, CH_e, CH_t]),
     (mozjs_anon_sym_const, [CH_c, CH_o, CH_n, CH_s, CH_t]),
     (mozjs_anon_sym_using, [CH_u, CH_s, CH_i, CH_n, CH_g]),
     (mozjs_anon_sym_await, [CH_a, CH_w, CH_a, CH_i, CH_t]),
     (mozjs_anon_sym_of, [CH_o, CH_f]),
     (mozjs_anon_sym_else, [CH_e, CH_l, CH_s, CH_e]),
     (mozjs_anon_sym_if, [CH_i, CH_f]),
     (mozjs_anon_sym_switch, [CH_s, CH_w, CH_i, CH_t, CH_c, CH_h]),
     (mozjs_anon_sym_for, [CH_f, CH_o, CH_r]),
     (mozjs_anon_sym_LPAREN, [CH_LPAREN]),
     (mozjs_anon_sym_SEMI, [CH_SEMICOLON]),
     (mozjs_anon_sym_RPAREN, [CH_RPAREN]),
     (mozjs_anon_sym_in, [CH_i, CH_n]),
     (mozjs_anon_sym_while, [CH_w, CH_h, CH_i, CH_l, CH_e]),
     (mozjs_anon_sym_do, [CH_d, CH_o]),
     (mozjs_anon_sym_try, [CH_t, CH_r, CH_y]),
     (mozjs_anon_sym_break, [CH_b, CH_r, CH_e, CH_a, CH_k]),
     (mozjs_anon_sym_continue, [CH_c, CH_o, CH_n, CH_t, CH_i, CH_n, CH_u, CH_e]),
     (mozjs_anon_sym_debugger, [CH_d, CH_e, CH_b, CH_u, CH_g, CH_g, CH_e, CH_r]),
     (mozjs_anon_sym_return, [CH_r, CH_e, CH_t, CH_u, CH_r, CH_n]),
     (mozjs_anon_sym_throw, [CH_t, CH_h, CH_r, CH_o, CH_w]),
     (mozjs_anon_sym_COLON, [CH_COLON]),
     (mozjs_anon_sym_case, [CH_c, CH_a, CH_s, CH_e]),
     (mozjs_anon_sym_catch, [CH_c, CH_a, CH_t, CH_c, CH_h]),
     (mozjs_anon_sym_finally, [CH_f, CH_i, CH_n, CH_a, CH_l, CH_l, CH_y]),
     (mozjs_anon_sym_yield, [CH_y, CH_i, CH_e, CH_l, CH_d]),
     (mozjs_anon_sym_EQ, [CH_EQUALS]),
     (mozjs_anon_sym_LBRACK, [CH_LBRACKET]),
     (mozjs_anon_sym_RBRACK, [CH_RBRACKET]),
     (mozjs_anon_sym_LT, [CH_LT]),
     (mozjs_anon_sym_GT, [CH_GT]),
     (mozjs_anon_sym_DOT, [CH_DOT]),
     (mozjs_anon_sym_DQUOTE, [CH_DQUOTE]),
     (mozjs_anon_sym_SQUOTE, [CH_QUOTE]),
     (mozjs_anon_sym_class, [CH_c, CH_l, CH_a, CH_s, CH_s]),
     (mozjs_anon_sym_extends, [CH_e, CH_x, CH_t, CH_e, CH_n, CH_d, CH_s]),
     (mozjs_anon_sym_async, [CH_a, CH_s, CH_y, CH_n, CH_c]),
     (mozjs_anon_sym_function, [CH_f, CH_u, CH_n, CH_c, CH_t, CH_i, CH_o, CH_n]),
     (mozjs_anon_sym_EQ_GT, [CH_EQUALS, CH_GT]),
     (mozjs_sym_optional_chain, [CH_QMARK, CH_DOT]),
     (mozjs_anon_sym_new, [CH_n, CH_e, CH_w]),
     (mozjs_anon_sym_PLUS, [CH_PLUS]),
     (mozjs_anon_sym_DASH, [CH_MINUS]),
     (mozjs_anon_sym_SLASH, [CH_SLASH]),
     (mozjs_anon_sym_BANG, [CH_BANG]),
     (mozjs_anon_sym_TILDE, [CH_TILDE]),
     (mozjs_anon_sym_typeof, [CH_t, CH_y, CH_p, CH_e, CH_o, CH_f]),
     (mozjs_anon_sym_void, [CH_v, CH_o, CH_i, CH_d]),
     (mozjs_anon_sym_delete, [CH_d, CH_e, CH_l, CH_e, CH_t, CH_e]),
     (mozjs_anon_sym_PLUS_PLUS, [CH_PLUS, CH_PLUS]),
     (mozjs_anon_sym_DASH_DASH, [CH_MINUS, CH_MINUS]),
     (mozjs_sym_comment, [CH_SLASH, CH_SLASH]),
     (mozjs_anon_sym_BQUOTE, [CH_BACKTICK]),
     (mozjs_sym_number, [CH_0]),
     (mozjs_sym_private_property_identifier, [CH_HASH, CH_DOLLAR]),
     (mozjs_anon_sym_target, [CH_t, CH_a, CH_r, CH_g, CH_e, CH_t]),
     (mozjs_anon_sym_meta, [CH_m, CH_e, CH_t, CH_a]),
     (mozjs_sym_this, [CH_t, CH_h, CH_i, CH_s]),
     (mozjs_sym_super, [CH_s, CH_u, CH_p, CH_e, CH_r]),
     (mozjs_sym_true, [CH_t, CH_r, CH_u, CH_e]),
     (mozjs_sym_false, [CH_f, CH_a, CH_l, CH_s, CH_e]),
     (mozjs_sym_null, [CH_n, CH_u, CH_l, CH_l]),
     (mozjs_sym_undefined, [CH_u, CH_n, CH_d, CH_e, CH_f, CH_i, CH_n, CH_e, CH_d]),
     (mozjs_anon_sym_AT, [CH_AT]),
     (mozjs_anon_sym_static, [CH_s, CH_t, CH_a, CH_t, CH_i, CH_c]),
     (mozjs_anon_sym_get, [CH_g, CH_e, CH_t]),
     (mozjs_anon_sym_set, [CH_s, CH_e, CH_t]),
     (mozjs_sym_preproc, [CH_HASH, CH_LF])]"

definition mozjs_mode_words :: "(TSStateId \<times> (TSSymbol \<times> codepoint list) list) list" where
  "mozjs_mode_words = [(12, mozjs_words_12), (13, mozjs_words_13), (14, mozjs_words_14), (15,
    mozjs_words_15), (16, mozjs_words_16), (17, mozjs_words_17), (18, mozjs_words_18), (20,
    mozjs_words_20), (21, mozjs_words_21), (22, mozjs_words_22), (24, mozjs_words_24), (28,
    mozjs_words_28), (30, mozjs_words_30), (32, mozjs_words_32), (44, mozjs_words_44), (45,
    mozjs_words_45), (137, mozjs_words_137), (138, mozjs_words_138)]"

lemmas mozjs_words_defs =
  mozjs_words_12_def mozjs_words_13_def mozjs_words_14_def mozjs_words_15_def mozjs_words_16_def
    mozjs_words_17_def mozjs_words_18_def mozjs_words_20_def mozjs_words_21_def
    mozjs_words_22_def mozjs_words_24_def mozjs_words_28_def mozjs_words_30_def
    mozjs_words_32_def mozjs_words_44_def mozjs_words_45_def mozjs_words_137_def
    mozjs_words_138_def

lemma mozjs_samples:
  "list_all (\<lambda>(x, w). mozjs_sample_ok 12 x w) mozjs_words_12"
  "list_all (\<lambda>(x, w). mozjs_sample_ok 13 x w) mozjs_words_13"
  "list_all (\<lambda>(x, w). mozjs_sample_ok 14 x w) mozjs_words_14"
  "list_all (\<lambda>(x, w). mozjs_sample_ok 15 x w) mozjs_words_15"
  "list_all (\<lambda>(x, w). mozjs_sample_ok 16 x w) mozjs_words_16"
  "list_all (\<lambda>(x, w). mozjs_sample_ok 17 x w) mozjs_words_17"
  "list_all (\<lambda>(x, w). mozjs_sample_ok 18 x w) mozjs_words_18"
  "list_all (\<lambda>(x, w). mozjs_sample_ok 20 x w) mozjs_words_20"
  "list_all (\<lambda>(x, w). mozjs_sample_ok 21 x w) mozjs_words_21"
  "list_all (\<lambda>(x, w). mozjs_sample_ok 22 x w) mozjs_words_22"
  "list_all (\<lambda>(x, w). mozjs_sample_ok 24 x w) mozjs_words_24"
  "list_all (\<lambda>(x, w). mozjs_sample_ok 28 x w) mozjs_words_28"
  "list_all (\<lambda>(x, w). mozjs_sample_ok 30 x w) mozjs_words_30"
  "list_all (\<lambda>(x, w). mozjs_sample_ok 32 x w) mozjs_words_32"
  "list_all (\<lambda>(x, w). mozjs_sample_ok 44 x w) mozjs_words_44"
  "list_all (\<lambda>(x, w). mozjs_sample_ok 45 x w) mozjs_words_45"
  "list_all (\<lambda>(x, w). mozjs_sample_ok 137 x w) mozjs_words_137"
  "list_all (\<lambda>(x, w). mozjs_sample_ok 138 x w) mozjs_words_138"
  by (simp_all add: mozjs_words_defs mozjs_sample_ok_def better_def mozjs_switch.switch_eval mozjs_case_facts
      mozjs_lex_defs mozjs_keyword.switch_eval mozjs_kw_case_facts mozjs_kw_defs
      mozjs_in_extras_iff mozjs_starts_identifier_iff mozjs_in_identifier_iff)

definition mozjs_mode_pair :: "TSStateId \<Rightarrow> TSSymbol \<Rightarrow> bool" where
  "mozjs_mode_pair m x \<longleftrightarrow> (\<exists>(k, ws)\<in>set mozjs_mode_words. k = m \<and> x \<in> fst ` set ws)"

lemma mozjs_pair_all: "(m, ws) \<in> set mozjs_mode_words \<Longrightarrow> list_all (\<lambda>(x, w). mozjs_mode_pair m x) ws"
  by (force simp: mozjs_mode_pair_def list_all_iff)

lemma mozjs_mode_words_mem:
  "(12, mozjs_words_12) \<in> set mozjs_mode_words"
  "(13, mozjs_words_13) \<in> set mozjs_mode_words"
  "(14, mozjs_words_14) \<in> set mozjs_mode_words"
  "(15, mozjs_words_15) \<in> set mozjs_mode_words"
  "(16, mozjs_words_16) \<in> set mozjs_mode_words"
  "(17, mozjs_words_17) \<in> set mozjs_mode_words"
  "(18, mozjs_words_18) \<in> set mozjs_mode_words"
  "(20, mozjs_words_20) \<in> set mozjs_mode_words"
  "(21, mozjs_words_21) \<in> set mozjs_mode_words"
  "(22, mozjs_words_22) \<in> set mozjs_mode_words"
  "(24, mozjs_words_24) \<in> set mozjs_mode_words"
  "(28, mozjs_words_28) \<in> set mozjs_mode_words"
  "(30, mozjs_words_30) \<in> set mozjs_mode_words"
  "(32, mozjs_words_32) \<in> set mozjs_mode_words"
  "(44, mozjs_words_44) \<in> set mozjs_mode_words"
  "(45, mozjs_words_45) \<in> set mozjs_mode_words"
  "(137, mozjs_words_137) \<in> set mozjs_mode_words"
  "(138, mozjs_words_138) \<in> set mozjs_mode_words"
  by (simp_all add: mozjs_mode_words_def)

lemmas mozjs_pair_facts =
  mozjs_pair_all [OF mozjs_mode_words_mem(1), unfolded mozjs_words_12_def list.pred_inject prod.case One_nat_def]
  mozjs_pair_all [OF mozjs_mode_words_mem(2), unfolded mozjs_words_13_def list.pred_inject prod.case One_nat_def]
  mozjs_pair_all [OF mozjs_mode_words_mem(3), unfolded mozjs_words_14_def list.pred_inject prod.case One_nat_def]
  mozjs_pair_all [OF mozjs_mode_words_mem(4), unfolded mozjs_words_15_def list.pred_inject prod.case One_nat_def]
  mozjs_pair_all [OF mozjs_mode_words_mem(5), unfolded mozjs_words_16_def list.pred_inject prod.case One_nat_def]
  mozjs_pair_all [OF mozjs_mode_words_mem(6), unfolded mozjs_words_17_def list.pred_inject prod.case One_nat_def]
  mozjs_pair_all [OF mozjs_mode_words_mem(7), unfolded mozjs_words_18_def list.pred_inject prod.case One_nat_def]
  mozjs_pair_all [OF mozjs_mode_words_mem(8), unfolded mozjs_words_20_def list.pred_inject prod.case One_nat_def]
  mozjs_pair_all [OF mozjs_mode_words_mem(9), unfolded mozjs_words_21_def list.pred_inject prod.case One_nat_def]
  mozjs_pair_all [OF mozjs_mode_words_mem(10), unfolded mozjs_words_22_def list.pred_inject prod.case One_nat_def]
  mozjs_pair_all [OF mozjs_mode_words_mem(11), unfolded mozjs_words_24_def list.pred_inject prod.case One_nat_def]
  mozjs_pair_all [OF mozjs_mode_words_mem(12), unfolded mozjs_words_28_def list.pred_inject prod.case One_nat_def]
  mozjs_pair_all [OF mozjs_mode_words_mem(13), unfolded mozjs_words_30_def list.pred_inject prod.case One_nat_def]
  mozjs_pair_all [OF mozjs_mode_words_mem(14), unfolded mozjs_words_32_def list.pred_inject prod.case One_nat_def]
  mozjs_pair_all [OF mozjs_mode_words_mem(15), unfolded mozjs_words_44_def list.pred_inject prod.case One_nat_def]
  mozjs_pair_all [OF mozjs_mode_words_mem(16), unfolded mozjs_words_45_def list.pred_inject prod.case One_nat_def]
  mozjs_pair_all [OF mozjs_mode_words_mem(17), unfolded mozjs_words_137_def list.pred_inject prod.case One_nat_def]
  mozjs_pair_all [OF mozjs_mode_words_mem(18), unfolded mozjs_words_138_def list.pred_inject prod.case One_nat_def]

lemma mozjs_pair_sample:
  assumes "mozjs_mode_pair m x"
  shows "\<exists>w. mozjs_sample_ok m x w"
proof -
  have "list_all (\<lambda>(k, ws). list_all (\<lambda>(x, w). mozjs_sample_ok k x w) ws) mozjs_mode_words"
    by (simp add: mozjs_mode_words_def mozjs_samples)
  then show ?thesis using assms by (fastforce simp: mozjs_mode_pair_def list_all_iff)
qed

section \<open>External tokens\<close>

definition mozjs_external_tokens :: "(nat \<times> nat list) list" where
  "mozjs_external_tokens =
    [(2, [mozjs_ts_external_token_html_comment]),
     (3, [mozjs_ts_external_token_PIPE_PIPE, mozjs_ts_external_token__automatic_semicolon,
       mozjs_ts_external_token__ternary_qmark, mozjs_ts_external_token_html_comment]),
     (4, [mozjs_ts_external_token_PIPE_PIPE, mozjs_ts_external_token__ternary_qmark,
       mozjs_ts_external_token_html_comment]),
     (5, [mozjs_ts_external_token__automatic_semicolon, mozjs_ts_external_token_html_comment]),
     (6, [mozjs_ts_external_token_html_comment, mozjs_ts_external_token_jsx_text]),
     (7, [mozjs_ts_external_token__template_chars, mozjs_ts_external_token_escape_sequence,
       mozjs_ts_external_token_html_comment]),
     (8, [mozjs_ts_external_token_escape_sequence, mozjs_ts_external_token_html_comment]),
     (9, [mozjs_ts_external_token_html_comment, mozjs_ts_external_token_regex_pattern])]"

definition mozjs_external_pair :: "nat \<Rightarrow> TSSymbol \<Rightarrow> bool" where
  "mozjs_external_pair e x \<longleftrightarrow> (\<exists>i < mozjs_EXTERNAL_TOKEN_COUNT.
     external_symbol_map tree_sitter_mozjs i = x \<and>
     external_states tree_sitter_mozjs (e * mozjs_EXTERNAL_TOKEN_COUNT + i))"

lemma mozjs_external_all:
  "list_all (\<lambda>(e, is). list_all (\<lambda>i. i < mozjs_EXTERNAL_TOKEN_COUNT \<and>
     external_states tree_sitter_mozjs (e * mozjs_EXTERNAL_TOKEN_COUNT + i)) is) mozjs_external_tokens"
  by (simp add: mozjs_external_tokens_def tree_sitter_mozjs_def flat_table_def mozjs_ts_external_scanner_states_def)

lemma mozjs_external_symbols:
  "external_symbol_map tree_sitter_mozjs mozjs_ts_external_token__automatic_semicolon = mozjs_sym__automatic_semicolon"
  "external_symbol_map tree_sitter_mozjs mozjs_ts_external_token__template_chars = mozjs_sym__template_chars"
  "external_symbol_map tree_sitter_mozjs mozjs_ts_external_token__ternary_qmark = mozjs_sym__ternary_qmark"
  "external_symbol_map tree_sitter_mozjs mozjs_ts_external_token_html_comment = mozjs_sym_html_comment"
  "external_symbol_map tree_sitter_mozjs mozjs_ts_external_token_PIPE_PIPE = mozjs_anon_sym_PIPE_PIPE"
  "external_symbol_map tree_sitter_mozjs mozjs_ts_external_token_escape_sequence = mozjs_sym_escape_sequence"
  "external_symbol_map tree_sitter_mozjs mozjs_ts_external_token_regex_pattern = mozjs_sym_regex_pattern"
  "external_symbol_map tree_sitter_mozjs mozjs_ts_external_token_jsx_text = mozjs_sym_jsx_text"
  by (simp_all add: tree_sitter_mozjs_def mozjs_ts_external_scanner_symbol_map_def)

lemma mozjs_external_facts:
  "mozjs_external_pair 2 mozjs_sym_html_comment"
  "mozjs_external_pair 3 mozjs_anon_sym_PIPE_PIPE"
  "mozjs_external_pair 3 mozjs_sym__automatic_semicolon"
  "mozjs_external_pair 3 mozjs_sym__ternary_qmark"
  "mozjs_external_pair 3 mozjs_sym_html_comment"
  "mozjs_external_pair 4 mozjs_anon_sym_PIPE_PIPE"
  "mozjs_external_pair 4 mozjs_sym__ternary_qmark"
  "mozjs_external_pair 4 mozjs_sym_html_comment"
  "mozjs_external_pair 5 mozjs_sym__automatic_semicolon"
  "mozjs_external_pair 5 mozjs_sym_html_comment"
  "mozjs_external_pair 6 mozjs_sym_html_comment"
  "mozjs_external_pair 6 mozjs_sym_jsx_text"
  "mozjs_external_pair 7 mozjs_sym__template_chars"
  "mozjs_external_pair 7 mozjs_sym_escape_sequence"
  "mozjs_external_pair 7 mozjs_sym_html_comment"
  "mozjs_external_pair 8 mozjs_sym_escape_sequence"
  "mozjs_external_pair 8 mozjs_sym_html_comment"
  "mozjs_external_pair 9 mozjs_sym_html_comment"
  "mozjs_external_pair 9 mozjs_sym_regex_pattern"
proof -
  have *: "i < mozjs_EXTERNAL_TOKEN_COUNT \<Longrightarrow> external_symbol_map tree_sitter_mozjs i = x \<Longrightarrow>
      external_states tree_sitter_mozjs (e * mozjs_EXTERNAL_TOKEN_COUNT + i) \<Longrightarrow> mozjs_external_pair e x" for e i x
    by (auto simp: mozjs_external_pair_def)
  note facts = mozjs_external_all [unfolded mozjs_external_tokens_def list.pred_inject prod.case One_nat_def]
  show "mozjs_external_pair 2 mozjs_sym_html_comment" using * [of mozjs_ts_external_token_html_comment mozjs_sym_html_comment 2] facts mozjs_external_symbols by simp
  show "mozjs_external_pair 3 mozjs_anon_sym_PIPE_PIPE" using * [of mozjs_ts_external_token_PIPE_PIPE mozjs_anon_sym_PIPE_PIPE 3] facts mozjs_external_symbols by simp
  show "mozjs_external_pair 3 mozjs_sym__automatic_semicolon" using * [of mozjs_ts_external_token__automatic_semicolon mozjs_sym__automatic_semicolon 3] facts mozjs_external_symbols by simp
  show "mozjs_external_pair 3 mozjs_sym__ternary_qmark" using * [of mozjs_ts_external_token__ternary_qmark mozjs_sym__ternary_qmark 3] facts mozjs_external_symbols by simp
  show "mozjs_external_pair 3 mozjs_sym_html_comment" using * [of mozjs_ts_external_token_html_comment mozjs_sym_html_comment 3] facts mozjs_external_symbols by simp
  show "mozjs_external_pair 4 mozjs_anon_sym_PIPE_PIPE" using * [of mozjs_ts_external_token_PIPE_PIPE mozjs_anon_sym_PIPE_PIPE 4] facts mozjs_external_symbols by simp
  show "mozjs_external_pair 4 mozjs_sym__ternary_qmark" using * [of mozjs_ts_external_token__ternary_qmark mozjs_sym__ternary_qmark 4] facts mozjs_external_symbols by simp
  show "mozjs_external_pair 4 mozjs_sym_html_comment" using * [of mozjs_ts_external_token_html_comment mozjs_sym_html_comment 4] facts mozjs_external_symbols by simp
  show "mozjs_external_pair 5 mozjs_sym__automatic_semicolon" using * [of mozjs_ts_external_token__automatic_semicolon mozjs_sym__automatic_semicolon 5] facts mozjs_external_symbols by simp
  show "mozjs_external_pair 5 mozjs_sym_html_comment" using * [of mozjs_ts_external_token_html_comment mozjs_sym_html_comment 5] facts mozjs_external_symbols by simp
  show "mozjs_external_pair 6 mozjs_sym_html_comment" using * [of mozjs_ts_external_token_html_comment mozjs_sym_html_comment 6] facts mozjs_external_symbols by simp
  show "mozjs_external_pair 6 mozjs_sym_jsx_text" using * [of mozjs_ts_external_token_jsx_text mozjs_sym_jsx_text 6] facts mozjs_external_symbols by simp
  show "mozjs_external_pair 7 mozjs_sym__template_chars" using * [of mozjs_ts_external_token__template_chars mozjs_sym__template_chars 7] facts mozjs_external_symbols by simp
  show "mozjs_external_pair 7 mozjs_sym_escape_sequence" using * [of mozjs_ts_external_token_escape_sequence mozjs_sym_escape_sequence 7] facts mozjs_external_symbols by simp
  show "mozjs_external_pair 7 mozjs_sym_html_comment" using * [of mozjs_ts_external_token_html_comment mozjs_sym_html_comment 7] facts mozjs_external_symbols by simp
  show "mozjs_external_pair 8 mozjs_sym_escape_sequence" using * [of mozjs_ts_external_token_escape_sequence mozjs_sym_escape_sequence 8] facts mozjs_external_symbols by simp
  show "mozjs_external_pair 8 mozjs_sym_html_comment" using * [of mozjs_ts_external_token_html_comment mozjs_sym_html_comment 8] facts mozjs_external_symbols by simp
  show "mozjs_external_pair 9 mozjs_sym_html_comment" using * [of mozjs_ts_external_token_html_comment mozjs_sym_html_comment 9] facts mozjs_external_symbols by simp
  show "mozjs_external_pair 9 mozjs_sym_regex_pattern" using * [of mozjs_ts_external_token_regex_pattern mozjs_sym_regex_pattern 9] facts mozjs_external_symbols by simp
qed

section \<open>The mode of a state\<close>

abbreviation mozjs_mode :: "TSStateId \<Rightarrow> TSLexMode" where
  "mozjs_mode \<equiv> array_of \<lparr>lex_state = 0, external_lex_state = 0\<rparr> mozjs_ts_lex_modes"

lemmas mozjs_mode_piece = array_of_piece [OF numbered_distinct [OF mozjs_modes_states]]

lemma mozjs_mode_pieces:
  "set mozjs_lex_modes_0 \<subseteq> set mozjs_ts_lex_modes"
  "set mozjs_lex_modes_1 \<subseteq> set mozjs_ts_lex_modes"
  "set mozjs_lex_modes_2 \<subseteq> set mozjs_ts_lex_modes"
  "set mozjs_lex_modes_3 \<subseteq> set mozjs_ts_lex_modes"
  "set mozjs_lex_modes_4 \<subseteq> set mozjs_ts_lex_modes"
  "set mozjs_lex_modes_5 \<subseteq> set mozjs_ts_lex_modes"
  "set mozjs_lex_modes_6 \<subseteq> set mozjs_ts_lex_modes"
  "set mozjs_lex_modes_7 \<subseteq> set mozjs_ts_lex_modes"
  "set mozjs_lex_modes_8 \<subseteq> set mozjs_ts_lex_modes"
  "set mozjs_lex_modes_9 \<subseteq> set mozjs_ts_lex_modes"
  "set mozjs_lex_modes_10 \<subseteq> set mozjs_ts_lex_modes"
  "set mozjs_lex_modes_11 \<subseteq> set mozjs_ts_lex_modes"
  "set mozjs_lex_modes_12 \<subseteq> set mozjs_ts_lex_modes"
  by (auto simp: mozjs_ts_lex_modes_def)

lemmas mozjs_mode_facts =
  mozjs_mode_piece [OF mozjs_mode_pieces(1), of "\<lparr>lex_state = 0, external_lex_state = 0\<rparr>", unfolded mozjs_lex_modes_0_def list.pred_inject prod.case One_nat_def]
  mozjs_mode_piece [OF mozjs_mode_pieces(2), of "\<lparr>lex_state = 0, external_lex_state = 0\<rparr>", unfolded mozjs_lex_modes_1_def list.pred_inject prod.case One_nat_def]
  mozjs_mode_piece [OF mozjs_mode_pieces(3), of "\<lparr>lex_state = 0, external_lex_state = 0\<rparr>", unfolded mozjs_lex_modes_2_def list.pred_inject prod.case One_nat_def]
  mozjs_mode_piece [OF mozjs_mode_pieces(4), of "\<lparr>lex_state = 0, external_lex_state = 0\<rparr>", unfolded mozjs_lex_modes_3_def list.pred_inject prod.case One_nat_def]
  mozjs_mode_piece [OF mozjs_mode_pieces(5), of "\<lparr>lex_state = 0, external_lex_state = 0\<rparr>", unfolded mozjs_lex_modes_4_def list.pred_inject prod.case One_nat_def]
  mozjs_mode_piece [OF mozjs_mode_pieces(6), of "\<lparr>lex_state = 0, external_lex_state = 0\<rparr>", unfolded mozjs_lex_modes_5_def list.pred_inject prod.case One_nat_def]
  mozjs_mode_piece [OF mozjs_mode_pieces(7), of "\<lparr>lex_state = 0, external_lex_state = 0\<rparr>", unfolded mozjs_lex_modes_6_def list.pred_inject prod.case One_nat_def]
  mozjs_mode_piece [OF mozjs_mode_pieces(8), of "\<lparr>lex_state = 0, external_lex_state = 0\<rparr>", unfolded mozjs_lex_modes_7_def list.pred_inject prod.case One_nat_def]
  mozjs_mode_piece [OF mozjs_mode_pieces(9), of "\<lparr>lex_state = 0, external_lex_state = 0\<rparr>", unfolded mozjs_lex_modes_8_def list.pred_inject prod.case One_nat_def]
  mozjs_mode_piece [OF mozjs_mode_pieces(10), of "\<lparr>lex_state = 0, external_lex_state = 0\<rparr>", unfolded mozjs_lex_modes_9_def list.pred_inject prod.case One_nat_def]
  mozjs_mode_piece [OF mozjs_mode_pieces(11), of "\<lparr>lex_state = 0, external_lex_state = 0\<rparr>", unfolded mozjs_lex_modes_10_def list.pred_inject prod.case One_nat_def]
  mozjs_mode_piece [OF mozjs_mode_pieces(12), of "\<lparr>lex_state = 0, external_lex_state = 0\<rparr>", unfolded mozjs_lex_modes_11_def list.pred_inject prod.case One_nat_def]
  mozjs_mode_piece [OF mozjs_mode_pieces(13), of "\<lparr>lex_state = 0, external_lex_state = 0\<rparr>", unfolded mozjs_lex_modes_12_def list.pred_inject prod.case One_nat_def]

section \<open>Indices of actions\<close>

definition mozjs_action_key :: "nat \<Rightarrow> bool" where
  "mozjs_action_key v \<longleftrightarrow> v \<in> set (map fst mozjs_ts_parse_actions)"

lemma mozjs_key_piece: "set piece \<subseteq> set mozjs_ts_parse_actions \<Longrightarrow> list_all (\<lambda>(v, run). mozjs_action_key v) piece"
  by (force simp: mozjs_action_key_def list_all_iff)

lemma mozjs_action_pieces:
  "set mozjs_parse_actions_0 \<subseteq> set mozjs_ts_parse_actions"
  "set mozjs_parse_actions_1 \<subseteq> set mozjs_ts_parse_actions"
  "set mozjs_parse_actions_2 \<subseteq> set mozjs_ts_parse_actions"
  "set mozjs_parse_actions_3 \<subseteq> set mozjs_ts_parse_actions"
  "set mozjs_parse_actions_4 \<subseteq> set mozjs_ts_parse_actions"
  "set mozjs_parse_actions_5 \<subseteq> set mozjs_ts_parse_actions"
  "set mozjs_parse_actions_6 \<subseteq> set mozjs_ts_parse_actions"
  "set mozjs_parse_actions_7 \<subseteq> set mozjs_ts_parse_actions"
  "set mozjs_parse_actions_8 \<subseteq> set mozjs_ts_parse_actions"
  "set mozjs_parse_actions_9 \<subseteq> set mozjs_ts_parse_actions"
  "set mozjs_parse_actions_10 \<subseteq> set mozjs_ts_parse_actions"
  "set mozjs_parse_actions_11 \<subseteq> set mozjs_ts_parse_actions"
  "set mozjs_parse_actions_12 \<subseteq> set mozjs_ts_parse_actions"
  "set mozjs_parse_actions_13 \<subseteq> set mozjs_ts_parse_actions"
  "set mozjs_parse_actions_14 \<subseteq> set mozjs_ts_parse_actions"
  "set mozjs_parse_actions_15 \<subseteq> set mozjs_ts_parse_actions"
  "set mozjs_parse_actions_16 \<subseteq> set mozjs_ts_parse_actions"
  "set mozjs_parse_actions_17 \<subseteq> set mozjs_ts_parse_actions"
  "set mozjs_parse_actions_18 \<subseteq> set mozjs_ts_parse_actions"
  by (auto simp: mozjs_ts_parse_actions_def)

lemmas mozjs_key_facts =
  mozjs_key_piece [OF mozjs_action_pieces(1), unfolded mozjs_parse_actions_0_def list.pred_inject prod.case One_nat_def]
  mozjs_key_piece [OF mozjs_action_pieces(2), unfolded mozjs_parse_actions_1_def list.pred_inject prod.case One_nat_def]
  mozjs_key_piece [OF mozjs_action_pieces(3), unfolded mozjs_parse_actions_2_def list.pred_inject prod.case One_nat_def]
  mozjs_key_piece [OF mozjs_action_pieces(4), unfolded mozjs_parse_actions_3_def list.pred_inject prod.case One_nat_def]
  mozjs_key_piece [OF mozjs_action_pieces(5), unfolded mozjs_parse_actions_4_def list.pred_inject prod.case One_nat_def]
  mozjs_key_piece [OF mozjs_action_pieces(6), unfolded mozjs_parse_actions_5_def list.pred_inject prod.case One_nat_def]
  mozjs_key_piece [OF mozjs_action_pieces(7), unfolded mozjs_parse_actions_6_def list.pred_inject prod.case One_nat_def]
  mozjs_key_piece [OF mozjs_action_pieces(8), unfolded mozjs_parse_actions_7_def list.pred_inject prod.case One_nat_def]
  mozjs_key_piece [OF mozjs_action_pieces(9), unfolded mozjs_parse_actions_8_def list.pred_inject prod.case One_nat_def]
  mozjs_key_piece [OF mozjs_action_pieces(10), unfolded mozjs_parse_actions_9_def list.pred_inject prod.case One_nat_def]
  mozjs_key_piece [OF mozjs_action_pieces(11), unfolded mozjs_parse_actions_10_def list.pred_inject prod.case One_nat_def]
  mozjs_key_piece [OF mozjs_action_pieces(12), unfolded mozjs_parse_actions_11_def list.pred_inject prod.case One_nat_def]
  mozjs_key_piece [OF mozjs_action_pieces(13), unfolded mozjs_parse_actions_12_def list.pred_inject prod.case One_nat_def]
  mozjs_key_piece [OF mozjs_action_pieces(14), unfolded mozjs_parse_actions_13_def list.pred_inject prod.case One_nat_def]
  mozjs_key_piece [OF mozjs_action_pieces(15), unfolded mozjs_parse_actions_14_def list.pred_inject prod.case One_nat_def]
  mozjs_key_piece [OF mozjs_action_pieces(16), unfolded mozjs_parse_actions_15_def list.pred_inject prod.case One_nat_def]
  mozjs_key_piece [OF mozjs_action_pieces(17), unfolded mozjs_parse_actions_16_def list.pred_inject prod.case One_nat_def]
  mozjs_key_piece [OF mozjs_action_pieces(18), unfolded mozjs_parse_actions_17_def list.pred_inject prod.case One_nat_def]
  mozjs_key_piece [OF mozjs_action_pieces(19), unfolded mozjs_parse_actions_18_def list.pred_inject prod.case One_nat_def]

section \<open>The check of an entry\<close>

definition mozjs_served :: "TSLexMode \<Rightarrow> TSSymbol \<Rightarrow> bool" where
  "mozjs_served md x \<longleftrightarrow> mozjs_external_pair (external_lex_state md) x \<or> mozjs_mode_pair (lex_state md) x"

definition mozjs_entry_ok :: "TSStateId \<Rightarrow> TSSymbol \<Rightarrow> nat \<Rightarrow> bool" where
  "mozjs_entry_ok s x v \<longleftrightarrow>
     (if x < mozjs_TOKEN_COUNT then mozjs_action_key v \<and> (v = 3685 \<longrightarrow> x = 0) \<and> (v = 1 \<longrightarrow> s = 0) \<and>
        (s = 0 \<or> mozjs_served (mozjs_mode s) x)
      else v < mozjs_STATE_COUNT)"

lemmas mozjs_check_simps = mozjs_entry_ok_def mozjs_served_def mozjs_external_facts mozjs_pair_facts mozjs_mode_facts mozjs_key_facts

end
