(* ===== verification/Mozjs_Check_Rows.thy ===== *)
theory Mozjs_Check_Rows
  imports Mozjs_Modes
begin

text \<open>The check of the entries of the large states, in pieces.\<close>

lemma mozjs_parse_rows_0_ok: "check_large mozjs_entry_ok mozjs_parse_rows_0"
  unfolding check_large_def by (simp add: mozjs_parse_rows_0_defs mozjs_check_simps)

lemma mozjs_parse_rows_1_ok: "check_large mozjs_entry_ok mozjs_parse_rows_1"
  unfolding check_large_def by (simp add: mozjs_parse_rows_1_defs mozjs_check_simps)

lemma mozjs_parse_rows_2_ok: "check_large mozjs_entry_ok mozjs_parse_rows_2"
  unfolding check_large_def by (simp add: mozjs_parse_rows_2_defs mozjs_check_simps)

lemma mozjs_parse_rows_3_ok: "check_large mozjs_entry_ok mozjs_parse_rows_3"
  unfolding check_large_def by (simp add: mozjs_parse_rows_3_defs mozjs_check_simps)

lemma mozjs_parse_rows_4_ok: "check_large mozjs_entry_ok mozjs_parse_rows_4"
  unfolding check_large_def by (simp add: mozjs_parse_rows_4_defs mozjs_check_simps)

lemma mozjs_parse_rows_5_ok: "check_large mozjs_entry_ok mozjs_parse_rows_5"
  unfolding check_large_def by (simp add: mozjs_parse_rows_5_defs mozjs_check_simps)

lemma mozjs_parse_rows_6_ok: "check_large mozjs_entry_ok mozjs_parse_rows_6"
  unfolding check_large_def by (simp add: mozjs_parse_rows_6_defs mozjs_check_simps)

lemma mozjs_parse_rows_7_ok: "check_large mozjs_entry_ok mozjs_parse_rows_7"
  unfolding check_large_def by (simp add: mozjs_parse_rows_7_defs mozjs_check_simps)

lemma mozjs_parse_rows_8_ok: "check_large mozjs_entry_ok mozjs_parse_rows_8"
  unfolding check_large_def by (simp add: mozjs_parse_rows_8_defs mozjs_check_simps)

lemma mozjs_parse_rows_9_ok: "check_large mozjs_entry_ok mozjs_parse_rows_9"
  unfolding check_large_def by (simp add: mozjs_parse_rows_9_defs mozjs_check_simps)

lemma mozjs_rows_ok: "check_large mozjs_entry_ok mozjs_ts_parse_table"
  using mozjs_parse_rows_0_ok mozjs_parse_rows_1_ok mozjs_parse_rows_2_ok mozjs_parse_rows_3_ok
    mozjs_parse_rows_4_ok mozjs_parse_rows_5_ok mozjs_parse_rows_6_ok mozjs_parse_rows_7_ok
    mozjs_parse_rows_8_ok mozjs_parse_rows_9_ok
  by (simp add: check_large_def mozjs_ts_parse_table_def)

end
