(* ===== verification/Mozjs_Check_Runs.thy ===== *)
theory Mozjs_Check_Runs
  imports Mozjs_Modes
begin

text \<open>The check of the entries of the small states, in pieces.\<close>

lemma mozjs_run_pieces_0_ok:
  "runs_checked mozjs_entry_ok 388 mozjs_small_table_0 390"
  "runs_checked mozjs_entry_ok 390 mozjs_small_table_1 392"
  "runs_checked mozjs_entry_ok 392 mozjs_small_table_2 394"
  "runs_checked mozjs_entry_ok 394 mozjs_small_table_3 396"
  "runs_checked mozjs_entry_ok 396 mozjs_small_table_4 398"
  "runs_checked mozjs_entry_ok 398 mozjs_small_table_5 400"
  "runs_checked mozjs_entry_ok 400 mozjs_small_table_6 402"
  "runs_checked mozjs_entry_ok 402 mozjs_small_table_7 404"
  "runs_checked mozjs_entry_ok 404 mozjs_small_table_8 406"
  "runs_checked mozjs_entry_ok 406 mozjs_small_table_9 408"
  "runs_checked mozjs_entry_ok 408 mozjs_small_table_10 410"
  "runs_checked mozjs_entry_ok 410 mozjs_small_table_11 412"
  "runs_checked mozjs_entry_ok 412 mozjs_small_table_12 414"
  "runs_checked mozjs_entry_ok 414 mozjs_small_table_13 416"
  "runs_checked mozjs_entry_ok 416 mozjs_small_table_14 418"
  "runs_checked mozjs_entry_ok 418 mozjs_small_table_15 420"
  "runs_checked mozjs_entry_ok 420 mozjs_small_table_16 422"
  "runs_checked mozjs_entry_ok 422 mozjs_small_table_17 424"
  by (simp_all add: runs_checked_def mozjs_small_table_0_defs mozjs_small_table_1_defs
    mozjs_small_table_2_defs mozjs_small_table_3_defs mozjs_small_table_4_defs
    mozjs_small_table_5_defs mozjs_small_table_6_defs mozjs_small_table_7_defs
    mozjs_small_table_8_defs mozjs_small_table_9_defs mozjs_small_table_10_defs
    mozjs_small_table_11_defs mozjs_small_table_12_defs mozjs_small_table_13_defs
    mozjs_small_table_14_defs mozjs_small_table_15_defs mozjs_small_table_16_defs
    mozjs_small_table_17_defs mozjs_check_simps)

lemma mozjs_run_pieces_1_ok:
  "runs_checked mozjs_entry_ok 424 mozjs_small_table_18 426"
  "runs_checked mozjs_entry_ok 426 mozjs_small_table_19 428"
  "runs_checked mozjs_entry_ok 428 mozjs_small_table_20 430"
  "runs_checked mozjs_entry_ok 430 mozjs_small_table_21 432"
  "runs_checked mozjs_entry_ok 432 mozjs_small_table_22 434"
  "runs_checked mozjs_entry_ok 434 mozjs_small_table_23 436"
  "runs_checked mozjs_entry_ok 436 mozjs_small_table_24 438"
  "runs_checked mozjs_entry_ok 438 mozjs_small_table_25 440"
  "runs_checked mozjs_entry_ok 440 mozjs_small_table_26 442"
  "runs_checked mozjs_entry_ok 442 mozjs_small_table_27 444"
  "runs_checked mozjs_entry_ok 444 mozjs_small_table_28 446"
  "runs_checked mozjs_entry_ok 446 mozjs_small_table_29 448"
  "runs_checked mozjs_entry_ok 448 mozjs_small_table_30 450"
  "runs_checked mozjs_entry_ok 450 mozjs_small_table_31 452"
  "runs_checked mozjs_entry_ok 452 mozjs_small_table_32 454"
  "runs_checked mozjs_entry_ok 454 mozjs_small_table_33 456"
  "runs_checked mozjs_entry_ok 456 mozjs_small_table_34 458"
  "runs_checked mozjs_entry_ok 458 mozjs_small_table_35 460"
  by (simp_all add: runs_checked_def mozjs_small_table_18_defs mozjs_small_table_19_defs
    mozjs_small_table_20_defs mozjs_small_table_21_defs mozjs_small_table_22_defs
    mozjs_small_table_23_defs mozjs_small_table_24_defs mozjs_small_table_25_defs
    mozjs_small_table_26_defs mozjs_small_table_27_defs mozjs_small_table_28_defs
    mozjs_small_table_29_defs mozjs_small_table_30_defs mozjs_small_table_31_defs
    mozjs_small_table_32_defs mozjs_small_table_33_defs mozjs_small_table_34_defs
    mozjs_small_table_35_defs mozjs_check_simps)

lemma mozjs_run_pieces_2_ok:
  "runs_checked mozjs_entry_ok 460 mozjs_small_table_36 462"
  "runs_checked mozjs_entry_ok 462 mozjs_small_table_37 464"
  "runs_checked mozjs_entry_ok 464 mozjs_small_table_38 466"
  "runs_checked mozjs_entry_ok 466 mozjs_small_table_39 468"
  "runs_checked mozjs_entry_ok 468 mozjs_small_table_40 470"
  "runs_checked mozjs_entry_ok 470 mozjs_small_table_41 472"
  "runs_checked mozjs_entry_ok 472 mozjs_small_table_42 474"
  "runs_checked mozjs_entry_ok 474 mozjs_small_table_43 476"
  "runs_checked mozjs_entry_ok 476 mozjs_small_table_44 478"
  "runs_checked mozjs_entry_ok 478 mozjs_small_table_45 480"
  "runs_checked mozjs_entry_ok 480 mozjs_small_table_46 482"
  "runs_checked mozjs_entry_ok 482 mozjs_small_table_47 484"
  "runs_checked mozjs_entry_ok 484 mozjs_small_table_48 486"
  "runs_checked mozjs_entry_ok 486 mozjs_small_table_49 488"
  "runs_checked mozjs_entry_ok 488 mozjs_small_table_50 490"
  "runs_checked mozjs_entry_ok 490 mozjs_small_table_51 492"
  "runs_checked mozjs_entry_ok 492 mozjs_small_table_52 494"
  "runs_checked mozjs_entry_ok 494 mozjs_small_table_53 496"
  by (simp_all add: runs_checked_def mozjs_small_table_36_defs mozjs_small_table_37_defs
    mozjs_small_table_38_defs mozjs_small_table_39_defs mozjs_small_table_40_defs
    mozjs_small_table_41_defs mozjs_small_table_42_defs mozjs_small_table_43_defs
    mozjs_small_table_44_defs mozjs_small_table_45_defs mozjs_small_table_46_defs
    mozjs_small_table_47_defs mozjs_small_table_48_defs mozjs_small_table_49_defs
    mozjs_small_table_50_defs mozjs_small_table_51_defs mozjs_small_table_52_defs
    mozjs_small_table_53_defs mozjs_check_simps)

lemma mozjs_run_pieces_3_ok:
  "runs_checked mozjs_entry_ok 496 mozjs_small_table_54 498"
  "runs_checked mozjs_entry_ok 498 mozjs_small_table_55 500"
  "runs_checked mozjs_entry_ok 500 mozjs_small_table_56 502"
  "runs_checked mozjs_entry_ok 502 mozjs_small_table_57 504"
  "runs_checked mozjs_entry_ok 504 mozjs_small_table_58 506"
  "runs_checked mozjs_entry_ok 506 mozjs_small_table_59 508"
  "runs_checked mozjs_entry_ok 508 mozjs_small_table_60 510"
  "runs_checked mozjs_entry_ok 510 mozjs_small_table_61 512"
  "runs_checked mozjs_entry_ok 512 mozjs_small_table_62 514"
  "runs_checked mozjs_entry_ok 514 mozjs_small_table_63 516"
  "runs_checked mozjs_entry_ok 516 mozjs_small_table_64 518"
  "runs_checked mozjs_entry_ok 518 mozjs_small_table_65 520"
  "runs_checked mozjs_entry_ok 520 mozjs_small_table_66 522"
  "runs_checked mozjs_entry_ok 522 mozjs_small_table_67 524"
  "runs_checked mozjs_entry_ok 524 mozjs_small_table_68 526"
  "runs_checked mozjs_entry_ok 526 mozjs_small_table_69 528"
  "runs_checked mozjs_entry_ok 528 mozjs_small_table_70 530"
  "runs_checked mozjs_entry_ok 530 mozjs_small_table_71 532"
  by (simp_all add: runs_checked_def mozjs_small_table_54_defs mozjs_small_table_55_defs
    mozjs_small_table_56_defs mozjs_small_table_57_defs mozjs_small_table_58_defs
    mozjs_small_table_59_defs mozjs_small_table_60_defs mozjs_small_table_61_defs
    mozjs_small_table_62_defs mozjs_small_table_63_defs mozjs_small_table_64_defs
    mozjs_small_table_65_defs mozjs_small_table_66_defs mozjs_small_table_67_defs
    mozjs_small_table_68_defs mozjs_small_table_69_defs mozjs_small_table_70_defs
    mozjs_small_table_71_defs mozjs_check_simps)

lemma mozjs_run_pieces_4_ok:
  "runs_checked mozjs_entry_ok 532 mozjs_small_table_72 534"
  "runs_checked mozjs_entry_ok 534 mozjs_small_table_73 536"
  "runs_checked mozjs_entry_ok 536 mozjs_small_table_74 538"
  "runs_checked mozjs_entry_ok 538 mozjs_small_table_75 540"
  "runs_checked mozjs_entry_ok 540 mozjs_small_table_76 542"
  "runs_checked mozjs_entry_ok 542 mozjs_small_table_77 544"
  "runs_checked mozjs_entry_ok 544 mozjs_small_table_78 546"
  "runs_checked mozjs_entry_ok 546 mozjs_small_table_79 548"
  "runs_checked mozjs_entry_ok 548 mozjs_small_table_80 550"
  "runs_checked mozjs_entry_ok 550 mozjs_small_table_81 552"
  "runs_checked mozjs_entry_ok 552 mozjs_small_table_82 554"
  "runs_checked mozjs_entry_ok 554 mozjs_small_table_83 556"
  "runs_checked mozjs_entry_ok 556 mozjs_small_table_84 558"
  "runs_checked mozjs_entry_ok 558 mozjs_small_table_85 560"
  "runs_checked mozjs_entry_ok 560 mozjs_small_table_86 562"
  "runs_checked mozjs_entry_ok 562 mozjs_small_table_87 564"
  "runs_checked mozjs_entry_ok 564 mozjs_small_table_88 566"
  "runs_checked mozjs_entry_ok 566 mozjs_small_table_89 568"
  by (simp_all add: runs_checked_def mozjs_small_table_72_defs mozjs_small_table_73_defs
    mozjs_small_table_74_defs mozjs_small_table_75_defs mozjs_small_table_76_defs
    mozjs_small_table_77_defs mozjs_small_table_78_defs mozjs_small_table_79_defs
    mozjs_small_table_80_defs mozjs_small_table_81_defs mozjs_small_table_82_defs
    mozjs_small_table_83_defs mozjs_small_table_84_defs mozjs_small_table_85_defs
    mozjs_small_table_86_defs mozjs_small_table_87_defs mozjs_small_table_88_defs
    mozjs_small_table_89_defs mozjs_check_simps)

lemma mozjs_run_pieces_5_ok:
  "runs_checked mozjs_entry_ok 568 mozjs_small_table_90 570"
  "runs_checked mozjs_entry_ok 570 mozjs_small_table_91 572"
  "runs_checked mozjs_entry_ok 572 mozjs_small_table_92 574"
  "runs_checked mozjs_entry_ok 574 mozjs_small_table_93 576"
  "runs_checked mozjs_entry_ok 576 mozjs_small_table_94 578"
  "runs_checked mozjs_entry_ok 578 mozjs_small_table_95 580"
  "runs_checked mozjs_entry_ok 580 mozjs_small_table_96 582"
  "runs_checked mozjs_entry_ok 582 mozjs_small_table_97 584"
  "runs_checked mozjs_entry_ok 584 mozjs_small_table_98 586"
  "runs_checked mozjs_entry_ok 586 mozjs_small_table_99 588"
  "runs_checked mozjs_entry_ok 588 mozjs_small_table_100 591"
  "runs_checked mozjs_entry_ok 591 mozjs_small_table_101 594"
  "runs_checked mozjs_entry_ok 594 mozjs_small_table_102 597"
  "runs_checked mozjs_entry_ok 597 mozjs_small_table_103 600"
  "runs_checked mozjs_entry_ok 600 mozjs_small_table_104 603"
  "runs_checked mozjs_entry_ok 603 mozjs_small_table_105 606"
  "runs_checked mozjs_entry_ok 606 mozjs_small_table_106 609"
  "runs_checked mozjs_entry_ok 609 mozjs_small_table_107 612"
  by (simp_all add: runs_checked_def mozjs_small_table_90_defs mozjs_small_table_91_defs
    mozjs_small_table_92_defs mozjs_small_table_93_defs mozjs_small_table_94_defs
    mozjs_small_table_95_defs mozjs_small_table_96_defs mozjs_small_table_97_defs
    mozjs_small_table_98_defs mozjs_small_table_99_defs mozjs_small_table_100_defs
    mozjs_small_table_101_defs mozjs_small_table_102_defs mozjs_small_table_103_defs
    mozjs_small_table_104_defs mozjs_small_table_105_defs mozjs_small_table_106_defs
    mozjs_small_table_107_defs mozjs_check_simps)

lemma mozjs_run_pieces_6_ok:
  "runs_checked mozjs_entry_ok 612 mozjs_small_table_108 615"
  "runs_checked mozjs_entry_ok 615 mozjs_small_table_109 618"
  "runs_checked mozjs_entry_ok 618 mozjs_small_table_110 621"
  "runs_checked mozjs_entry_ok 621 mozjs_small_table_111 624"
  "runs_checked mozjs_entry_ok 624 mozjs_small_table_112 627"
  "runs_checked mozjs_entry_ok 627 mozjs_small_table_113 630"
  "runs_checked mozjs_entry_ok 630 mozjs_small_table_114 633"
  "runs_checked mozjs_entry_ok 633 mozjs_small_table_115 636"
  "runs_checked mozjs_entry_ok 636 mozjs_small_table_116 639"
  "runs_checked mozjs_entry_ok 639 mozjs_small_table_117 642"
  "runs_checked mozjs_entry_ok 642 mozjs_small_table_118 645"
  "runs_checked mozjs_entry_ok 645 mozjs_small_table_119 648"
  "runs_checked mozjs_entry_ok 648 mozjs_small_table_120 651"
  "runs_checked mozjs_entry_ok 651 mozjs_small_table_121 653"
  "runs_checked mozjs_entry_ok 653 mozjs_small_table_122 655"
  "runs_checked mozjs_entry_ok 655 mozjs_small_table_123 657"
  "runs_checked mozjs_entry_ok 657 mozjs_small_table_124 659"
  "runs_checked mozjs_entry_ok 659 mozjs_small_table_125 661"
  by (simp_all add: runs_checked_def mozjs_small_table_108_defs mozjs_small_table_109_defs
    mozjs_small_table_110_defs mozjs_small_table_111_defs mozjs_small_table_112_defs
    mozjs_small_table_113_defs mozjs_small_table_114_defs mozjs_small_table_115_defs
    mozjs_small_table_116_defs mozjs_small_table_117_defs mozjs_small_table_118_defs
    mozjs_small_table_119_defs mozjs_small_table_120_defs mozjs_small_table_121_defs
    mozjs_small_table_122_defs mozjs_small_table_123_defs mozjs_small_table_124_defs
    mozjs_small_table_125_defs mozjs_check_simps)

lemma mozjs_run_pieces_7_ok:
  "runs_checked mozjs_entry_ok 661 mozjs_small_table_126 663"
  "runs_checked mozjs_entry_ok 663 mozjs_small_table_127 665"
  "runs_checked mozjs_entry_ok 665 mozjs_small_table_128 667"
  "runs_checked mozjs_entry_ok 667 mozjs_small_table_129 669"
  "runs_checked mozjs_entry_ok 669 mozjs_small_table_130 671"
  "runs_checked mozjs_entry_ok 671 mozjs_small_table_131 673"
  "runs_checked mozjs_entry_ok 673 mozjs_small_table_132 675"
  "runs_checked mozjs_entry_ok 675 mozjs_small_table_133 677"
  "runs_checked mozjs_entry_ok 677 mozjs_small_table_134 679"
  "runs_checked mozjs_entry_ok 679 mozjs_small_table_135 681"
  "runs_checked mozjs_entry_ok 681 mozjs_small_table_136 683"
  "runs_checked mozjs_entry_ok 683 mozjs_small_table_137 685"
  "runs_checked mozjs_entry_ok 685 mozjs_small_table_138 688"
  "runs_checked mozjs_entry_ok 688 mozjs_small_table_139 690"
  "runs_checked mozjs_entry_ok 690 mozjs_small_table_140 692"
  "runs_checked mozjs_entry_ok 692 mozjs_small_table_141 695"
  "runs_checked mozjs_entry_ok 695 mozjs_small_table_142 698"
  "runs_checked mozjs_entry_ok 698 mozjs_small_table_143 701"
  by (simp_all add: runs_checked_def mozjs_small_table_126_defs mozjs_small_table_127_defs
    mozjs_small_table_128_defs mozjs_small_table_129_defs mozjs_small_table_130_defs
    mozjs_small_table_131_defs mozjs_small_table_132_defs mozjs_small_table_133_defs
    mozjs_small_table_134_defs mozjs_small_table_135_defs mozjs_small_table_136_defs
    mozjs_small_table_137_defs mozjs_small_table_138_defs mozjs_small_table_139_defs
    mozjs_small_table_140_defs mozjs_small_table_141_defs mozjs_small_table_142_defs
    mozjs_small_table_143_defs mozjs_check_simps)

lemma mozjs_run_pieces_8_ok:
  "runs_checked mozjs_entry_ok 701 mozjs_small_table_144 703"
  "runs_checked mozjs_entry_ok 703 mozjs_small_table_145 705"
  "runs_checked mozjs_entry_ok 705 mozjs_small_table_146 707"
  "runs_checked mozjs_entry_ok 707 mozjs_small_table_147 709"
  "runs_checked mozjs_entry_ok 709 mozjs_small_table_148 711"
  "runs_checked mozjs_entry_ok 711 mozjs_small_table_149 713"
  "runs_checked mozjs_entry_ok 713 mozjs_small_table_150 715"
  "runs_checked mozjs_entry_ok 715 mozjs_small_table_151 717"
  "runs_checked mozjs_entry_ok 717 mozjs_small_table_152 719"
  "runs_checked mozjs_entry_ok 719 mozjs_small_table_153 721"
  "runs_checked mozjs_entry_ok 721 mozjs_small_table_154 723"
  "runs_checked mozjs_entry_ok 723 mozjs_small_table_155 725"
  "runs_checked mozjs_entry_ok 725 mozjs_small_table_156 727"
  "runs_checked mozjs_entry_ok 727 mozjs_small_table_157 729"
  "runs_checked mozjs_entry_ok 729 mozjs_small_table_158 731"
  "runs_checked mozjs_entry_ok 731 mozjs_small_table_159 733"
  "runs_checked mozjs_entry_ok 733 mozjs_small_table_160 736"
  "runs_checked mozjs_entry_ok 736 mozjs_small_table_161 738"
  by (simp_all add: runs_checked_def mozjs_small_table_144_defs mozjs_small_table_145_defs
    mozjs_small_table_146_defs mozjs_small_table_147_defs mozjs_small_table_148_defs
    mozjs_small_table_149_defs mozjs_small_table_150_defs mozjs_small_table_151_defs
    mozjs_small_table_152_defs mozjs_small_table_153_defs mozjs_small_table_154_defs
    mozjs_small_table_155_defs mozjs_small_table_156_defs mozjs_small_table_157_defs
    mozjs_small_table_158_defs mozjs_small_table_159_defs mozjs_small_table_160_defs
    mozjs_small_table_161_defs mozjs_check_simps)

lemma mozjs_run_pieces_9_ok:
  "runs_checked mozjs_entry_ok 738 mozjs_small_table_162 741"
  "runs_checked mozjs_entry_ok 741 mozjs_small_table_163 744"
  "runs_checked mozjs_entry_ok 744 mozjs_small_table_164 747"
  "runs_checked mozjs_entry_ok 747 mozjs_small_table_165 749"
  "runs_checked mozjs_entry_ok 749 mozjs_small_table_166 751"
  "runs_checked mozjs_entry_ok 751 mozjs_small_table_167 753"
  "runs_checked mozjs_entry_ok 753 mozjs_small_table_168 755"
  "runs_checked mozjs_entry_ok 755 mozjs_small_table_169 757"
  "runs_checked mozjs_entry_ok 757 mozjs_small_table_170 759"
  "runs_checked mozjs_entry_ok 759 mozjs_small_table_171 761"
  "runs_checked mozjs_entry_ok 761 mozjs_small_table_172 763"
  "runs_checked mozjs_entry_ok 763 mozjs_small_table_173 765"
  "runs_checked mozjs_entry_ok 765 mozjs_small_table_174 768"
  "runs_checked mozjs_entry_ok 768 mozjs_small_table_175 771"
  "runs_checked mozjs_entry_ok 771 mozjs_small_table_176 774"
  "runs_checked mozjs_entry_ok 774 mozjs_small_table_177 776"
  "runs_checked mozjs_entry_ok 776 mozjs_small_table_178 779"
  "runs_checked mozjs_entry_ok 779 mozjs_small_table_179 781"
  by (simp_all add: runs_checked_def mozjs_small_table_162_defs mozjs_small_table_163_defs
    mozjs_small_table_164_defs mozjs_small_table_165_defs mozjs_small_table_166_defs
    mozjs_small_table_167_defs mozjs_small_table_168_defs mozjs_small_table_169_defs
    mozjs_small_table_170_defs mozjs_small_table_171_defs mozjs_small_table_172_defs
    mozjs_small_table_173_defs mozjs_small_table_174_defs mozjs_small_table_175_defs
    mozjs_small_table_176_defs mozjs_small_table_177_defs mozjs_small_table_178_defs
    mozjs_small_table_179_defs mozjs_check_simps)

lemma mozjs_run_pieces_10_ok:
  "runs_checked mozjs_entry_ok 781 mozjs_small_table_180 783"
  "runs_checked mozjs_entry_ok 783 mozjs_small_table_181 785"
  "runs_checked mozjs_entry_ok 785 mozjs_small_table_182 787"
  "runs_checked mozjs_entry_ok 787 mozjs_small_table_183 790"
  "runs_checked mozjs_entry_ok 790 mozjs_small_table_184 793"
  "runs_checked mozjs_entry_ok 793 mozjs_small_table_185 796"
  "runs_checked mozjs_entry_ok 796 mozjs_small_table_186 798"
  "runs_checked mozjs_entry_ok 798 mozjs_small_table_187 801"
  "runs_checked mozjs_entry_ok 801 mozjs_small_table_188 804"
  "runs_checked mozjs_entry_ok 804 mozjs_small_table_189 807"
  "runs_checked mozjs_entry_ok 807 mozjs_small_table_190 809"
  "runs_checked mozjs_entry_ok 809 mozjs_small_table_191 812"
  "runs_checked mozjs_entry_ok 812 mozjs_small_table_192 814"
  "runs_checked mozjs_entry_ok 814 mozjs_small_table_193 816"
  "runs_checked mozjs_entry_ok 816 mozjs_small_table_194 819"
  "runs_checked mozjs_entry_ok 819 mozjs_small_table_195 821"
  "runs_checked mozjs_entry_ok 821 mozjs_small_table_196 823"
  "runs_checked mozjs_entry_ok 823 mozjs_small_table_197 825"
  by (simp_all add: runs_checked_def mozjs_small_table_180_defs mozjs_small_table_181_defs
    mozjs_small_table_182_defs mozjs_small_table_183_defs mozjs_small_table_184_defs
    mozjs_small_table_185_defs mozjs_small_table_186_defs mozjs_small_table_187_defs
    mozjs_small_table_188_defs mozjs_small_table_189_defs mozjs_small_table_190_defs
    mozjs_small_table_191_defs mozjs_small_table_192_defs mozjs_small_table_193_defs
    mozjs_small_table_194_defs mozjs_small_table_195_defs mozjs_small_table_196_defs
    mozjs_small_table_197_defs mozjs_check_simps)

lemma mozjs_run_pieces_11_ok:
  "runs_checked mozjs_entry_ok 825 mozjs_small_table_198 827"
  "runs_checked mozjs_entry_ok 827 mozjs_small_table_199 829"
  "runs_checked mozjs_entry_ok 829 mozjs_small_table_200 831"
  "runs_checked mozjs_entry_ok 831 mozjs_small_table_201 833"
  "runs_checked mozjs_entry_ok 833 mozjs_small_table_202 835"
  "runs_checked mozjs_entry_ok 835 mozjs_small_table_203 837"
  "runs_checked mozjs_entry_ok 837 mozjs_small_table_204 839"
  "runs_checked mozjs_entry_ok 839 mozjs_small_table_205 841"
  "runs_checked mozjs_entry_ok 841 mozjs_small_table_206 843"
  "runs_checked mozjs_entry_ok 843 mozjs_small_table_207 845"
  "runs_checked mozjs_entry_ok 845 mozjs_small_table_208 847"
  "runs_checked mozjs_entry_ok 847 mozjs_small_table_209 849"
  "runs_checked mozjs_entry_ok 849 mozjs_small_table_210 851"
  "runs_checked mozjs_entry_ok 851 mozjs_small_table_211 853"
  "runs_checked mozjs_entry_ok 853 mozjs_small_table_212 855"
  "runs_checked mozjs_entry_ok 855 mozjs_small_table_213 857"
  "runs_checked mozjs_entry_ok 857 mozjs_small_table_214 860"
  "runs_checked mozjs_entry_ok 860 mozjs_small_table_215 862"
  by (simp_all add: runs_checked_def mozjs_small_table_198_defs mozjs_small_table_199_defs
    mozjs_small_table_200_defs mozjs_small_table_201_defs mozjs_small_table_202_defs
    mozjs_small_table_203_defs mozjs_small_table_204_defs mozjs_small_table_205_defs
    mozjs_small_table_206_defs mozjs_small_table_207_defs mozjs_small_table_208_defs
    mozjs_small_table_209_defs mozjs_small_table_210_defs mozjs_small_table_211_defs
    mozjs_small_table_212_defs mozjs_small_table_213_defs mozjs_small_table_214_defs
    mozjs_small_table_215_defs mozjs_check_simps)

lemma mozjs_run_pieces_12_ok:
  "runs_checked mozjs_entry_ok 862 mozjs_small_table_216 864"
  "runs_checked mozjs_entry_ok 864 mozjs_small_table_217 866"
  "runs_checked mozjs_entry_ok 866 mozjs_small_table_218 868"
  "runs_checked mozjs_entry_ok 868 mozjs_small_table_219 870"
  "runs_checked mozjs_entry_ok 870 mozjs_small_table_220 872"
  "runs_checked mozjs_entry_ok 872 mozjs_small_table_221 874"
  "runs_checked mozjs_entry_ok 874 mozjs_small_table_222 876"
  "runs_checked mozjs_entry_ok 876 mozjs_small_table_223 878"
  "runs_checked mozjs_entry_ok 878 mozjs_small_table_224 880"
  "runs_checked mozjs_entry_ok 880 mozjs_small_table_225 882"
  "runs_checked mozjs_entry_ok 882 mozjs_small_table_226 884"
  "runs_checked mozjs_entry_ok 884 mozjs_small_table_227 886"
  "runs_checked mozjs_entry_ok 886 mozjs_small_table_228 888"
  "runs_checked mozjs_entry_ok 888 mozjs_small_table_229 890"
  "runs_checked mozjs_entry_ok 890 mozjs_small_table_230 892"
  "runs_checked mozjs_entry_ok 892 mozjs_small_table_231 894"
  "runs_checked mozjs_entry_ok 894 mozjs_small_table_232 896"
  "runs_checked mozjs_entry_ok 896 mozjs_small_table_233 898"
  by (simp_all add: runs_checked_def mozjs_small_table_216_defs mozjs_small_table_217_defs
    mozjs_small_table_218_defs mozjs_small_table_219_defs mozjs_small_table_220_defs
    mozjs_small_table_221_defs mozjs_small_table_222_defs mozjs_small_table_223_defs
    mozjs_small_table_224_defs mozjs_small_table_225_defs mozjs_small_table_226_defs
    mozjs_small_table_227_defs mozjs_small_table_228_defs mozjs_small_table_229_defs
    mozjs_small_table_230_defs mozjs_small_table_231_defs mozjs_small_table_232_defs
    mozjs_small_table_233_defs mozjs_check_simps)

lemma mozjs_run_pieces_13_ok:
  "runs_checked mozjs_entry_ok 898 mozjs_small_table_234 900"
  "runs_checked mozjs_entry_ok 900 mozjs_small_table_235 902"
  "runs_checked mozjs_entry_ok 902 mozjs_small_table_236 904"
  "runs_checked mozjs_entry_ok 904 mozjs_small_table_237 906"
  "runs_checked mozjs_entry_ok 906 mozjs_small_table_238 908"
  "runs_checked mozjs_entry_ok 908 mozjs_small_table_239 910"
  "runs_checked mozjs_entry_ok 910 mozjs_small_table_240 912"
  "runs_checked mozjs_entry_ok 912 mozjs_small_table_241 914"
  "runs_checked mozjs_entry_ok 914 mozjs_small_table_242 916"
  "runs_checked mozjs_entry_ok 916 mozjs_small_table_243 918"
  "runs_checked mozjs_entry_ok 918 mozjs_small_table_244 920"
  "runs_checked mozjs_entry_ok 920 mozjs_small_table_245 922"
  "runs_checked mozjs_entry_ok 922 mozjs_small_table_246 924"
  "runs_checked mozjs_entry_ok 924 mozjs_small_table_247 926"
  "runs_checked mozjs_entry_ok 926 mozjs_small_table_248 928"
  "runs_checked mozjs_entry_ok 928 mozjs_small_table_249 930"
  "runs_checked mozjs_entry_ok 930 mozjs_small_table_250 932"
  "runs_checked mozjs_entry_ok 932 mozjs_small_table_251 934"
  by (simp_all add: runs_checked_def mozjs_small_table_234_defs mozjs_small_table_235_defs
    mozjs_small_table_236_defs mozjs_small_table_237_defs mozjs_small_table_238_defs
    mozjs_small_table_239_defs mozjs_small_table_240_defs mozjs_small_table_241_defs
    mozjs_small_table_242_defs mozjs_small_table_243_defs mozjs_small_table_244_defs
    mozjs_small_table_245_defs mozjs_small_table_246_defs mozjs_small_table_247_defs
    mozjs_small_table_248_defs mozjs_small_table_249_defs mozjs_small_table_250_defs
    mozjs_small_table_251_defs mozjs_check_simps)

lemma mozjs_run_pieces_14_ok:
  "runs_checked mozjs_entry_ok 934 mozjs_small_table_252 936"
  "runs_checked mozjs_entry_ok 936 mozjs_small_table_253 938"
  "runs_checked mozjs_entry_ok 938 mozjs_small_table_254 940"
  "runs_checked mozjs_entry_ok 940 mozjs_small_table_255 942"
  "runs_checked mozjs_entry_ok 942 mozjs_small_table_256 944"
  "runs_checked mozjs_entry_ok 944 mozjs_small_table_257 946"
  "runs_checked mozjs_entry_ok 946 mozjs_small_table_258 948"
  "runs_checked mozjs_entry_ok 948 mozjs_small_table_259 950"
  "runs_checked mozjs_entry_ok 950 mozjs_small_table_260 952"
  "runs_checked mozjs_entry_ok 952 mozjs_small_table_261 954"
  "runs_checked mozjs_entry_ok 954 mozjs_small_table_262 956"
  "runs_checked mozjs_entry_ok 956 mozjs_small_table_263 958"
  "runs_checked mozjs_entry_ok 958 mozjs_small_table_264 960"
  "runs_checked mozjs_entry_ok 960 mozjs_small_table_265 962"
  "runs_checked mozjs_entry_ok 962 mozjs_small_table_266 964"
  "runs_checked mozjs_entry_ok 964 mozjs_small_table_267 966"
  "runs_checked mozjs_entry_ok 966 mozjs_small_table_268 968"
  "runs_checked mozjs_entry_ok 968 mozjs_small_table_269 970"
  by (simp_all add: runs_checked_def mozjs_small_table_252_defs mozjs_small_table_253_defs
    mozjs_small_table_254_defs mozjs_small_table_255_defs mozjs_small_table_256_defs
    mozjs_small_table_257_defs mozjs_small_table_258_defs mozjs_small_table_259_defs
    mozjs_small_table_260_defs mozjs_small_table_261_defs mozjs_small_table_262_defs
    mozjs_small_table_263_defs mozjs_small_table_264_defs mozjs_small_table_265_defs
    mozjs_small_table_266_defs mozjs_small_table_267_defs mozjs_small_table_268_defs
    mozjs_small_table_269_defs mozjs_check_simps)

lemma mozjs_run_pieces_15_ok:
  "runs_checked mozjs_entry_ok 970 mozjs_small_table_270 972"
  "runs_checked mozjs_entry_ok 972 mozjs_small_table_271 974"
  "runs_checked mozjs_entry_ok 974 mozjs_small_table_272 976"
  "runs_checked mozjs_entry_ok 976 mozjs_small_table_273 978"
  "runs_checked mozjs_entry_ok 978 mozjs_small_table_274 980"
  "runs_checked mozjs_entry_ok 980 mozjs_small_table_275 982"
  "runs_checked mozjs_entry_ok 982 mozjs_small_table_276 984"
  "runs_checked mozjs_entry_ok 984 mozjs_small_table_277 986"
  "runs_checked mozjs_entry_ok 986 mozjs_small_table_278 988"
  "runs_checked mozjs_entry_ok 988 mozjs_small_table_279 991"
  "runs_checked mozjs_entry_ok 991 mozjs_small_table_280 993"
  "runs_checked mozjs_entry_ok 993 mozjs_small_table_281 996"
  "runs_checked mozjs_entry_ok 996 mozjs_small_table_282 999"
  "runs_checked mozjs_entry_ok 999 mozjs_small_table_283 1002"
  "runs_checked mozjs_entry_ok 1002 mozjs_small_table_284 1005"
  "runs_checked mozjs_entry_ok 1005 mozjs_small_table_285 1008"
  "runs_checked mozjs_entry_ok 1008 mozjs_small_table_286 1011"
  "runs_checked mozjs_entry_ok 1011 mozjs_small_table_287 1014"
  by (simp_all add: runs_checked_def mozjs_small_table_270_defs mozjs_small_table_271_defs
    mozjs_small_table_272_defs mozjs_small_table_273_defs mozjs_small_table_274_defs
    mozjs_small_table_275_defs mozjs_small_table_276_defs mozjs_small_table_277_defs
    mozjs_small_table_278_defs mozjs_small_table_279_defs mozjs_small_table_280_defs
    mozjs_small_table_281_defs mozjs_small_table_282_defs mozjs_small_table_283_defs
    mozjs_small_table_284_defs mozjs_small_table_285_defs mozjs_small_table_286_defs
    mozjs_small_table_287_defs mozjs_check_simps)

lemma mozjs_run_pieces_16_ok:
  "runs_checked mozjs_entry_ok 1014 mozjs_small_table_288 1017"
  "runs_checked mozjs_entry_ok 1017 mozjs_small_table_289 1020"
  "runs_checked mozjs_entry_ok 1020 mozjs_small_table_290 1023"
  "runs_checked mozjs_entry_ok 1023 mozjs_small_table_291 1027"
  "runs_checked mozjs_entry_ok 1027 mozjs_small_table_292 1031"
  "runs_checked mozjs_entry_ok 1031 mozjs_small_table_293 1035"
  "runs_checked mozjs_entry_ok 1035 mozjs_small_table_294 1039"
  "runs_checked mozjs_entry_ok 1039 mozjs_small_table_295 1044"
  "runs_checked mozjs_entry_ok 1044 mozjs_small_table_296 1049"
  "runs_checked mozjs_entry_ok 1049 mozjs_small_table_297 1054"
  "runs_checked mozjs_entry_ok 1054 mozjs_small_table_298 1059"
  "runs_checked mozjs_entry_ok 1059 mozjs_small_table_299 1064"
  "runs_checked mozjs_entry_ok 1064 mozjs_small_table_300 1070"
  "runs_checked mozjs_entry_ok 1070 mozjs_small_table_301 1076"
  "runs_checked mozjs_entry_ok 1076 mozjs_small_table_302 1081"
  "runs_checked mozjs_entry_ok 1081 mozjs_small_table_303 1086"
  "runs_checked mozjs_entry_ok 1086 mozjs_small_table_304 1091"
  "runs_checked mozjs_entry_ok 1091 mozjs_small_table_305 1096"
  by (simp_all add: runs_checked_def mozjs_small_table_288_defs mozjs_small_table_289_defs
    mozjs_small_table_290_defs mozjs_small_table_291_defs mozjs_small_table_292_defs
    mozjs_small_table_293_defs mozjs_small_table_294_defs mozjs_small_table_295_defs
    mozjs_small_table_296_defs mozjs_small_table_297_defs mozjs_small_table_298_defs
    mozjs_small_table_299_defs mozjs_small_table_300_defs mozjs_small_table_301_defs
    mozjs_small_table_302_defs mozjs_small_table_303_defs mozjs_small_table_304_defs
    mozjs_small_table_305_defs mozjs_check_simps)

lemma mozjs_run_pieces_17_ok:
  "runs_checked mozjs_entry_ok 1096 mozjs_small_table_306 1101"
  "runs_checked mozjs_entry_ok 1101 mozjs_small_table_307 1106"
  "runs_checked mozjs_entry_ok 1106 mozjs_small_table_308 1112"
  "runs_checked mozjs_entry_ok 1112 mozjs_small_table_309 1117"
  "runs_checked mozjs_entry_ok 1117 mozjs_small_table_310 1122"
  "runs_checked mozjs_entry_ok 1122 mozjs_small_table_311 1127"
  "runs_checked mozjs_entry_ok 1127 mozjs_small_table_312 1132"
  "runs_checked mozjs_entry_ok 1132 mozjs_small_table_313 1137"
  "runs_checked mozjs_entry_ok 1137 mozjs_small_table_314 1142"
  "runs_checked mozjs_entry_ok 1142 mozjs_small_table_315 1149"
  "runs_checked mozjs_entry_ok 1149 mozjs_small_table_316 1155"
  "runs_checked mozjs_entry_ok 1155 mozjs_small_table_317 1161"
  "runs_checked mozjs_entry_ok 1161 mozjs_small_table_318 1167"
  "runs_checked mozjs_entry_ok 1167 mozjs_small_table_319 1173"
  "runs_checked mozjs_entry_ok 1173 mozjs_small_table_320 1180"
  "runs_checked mozjs_entry_ok 1180 mozjs_small_table_321 1187"
  "runs_checked mozjs_entry_ok 1187 mozjs_small_table_322 1194"
  "runs_checked mozjs_entry_ok 1194 mozjs_small_table_323 1202"
  by (simp_all add: runs_checked_def mozjs_small_table_306_defs mozjs_small_table_307_defs
    mozjs_small_table_308_defs mozjs_small_table_309_defs mozjs_small_table_310_defs
    mozjs_small_table_311_defs mozjs_small_table_312_defs mozjs_small_table_313_defs
    mozjs_small_table_314_defs mozjs_small_table_315_defs mozjs_small_table_316_defs
    mozjs_small_table_317_defs mozjs_small_table_318_defs mozjs_small_table_319_defs
    mozjs_small_table_320_defs mozjs_small_table_321_defs mozjs_small_table_322_defs
    mozjs_small_table_323_defs mozjs_check_simps)

lemma mozjs_run_pieces_18_ok:
  "runs_checked mozjs_entry_ok 1202 mozjs_small_table_324 1210"
  "runs_checked mozjs_entry_ok 1210 mozjs_small_table_325 1220"
  "runs_checked mozjs_entry_ok 1220 mozjs_small_table_326 1229"
  "runs_checked mozjs_entry_ok 1229 mozjs_small_table_327 1239"
  "runs_checked mozjs_entry_ok 1239 mozjs_small_table_328 1250"
  "runs_checked mozjs_entry_ok 1250 mozjs_small_table_329 1261"
  "runs_checked mozjs_entry_ok 1261 mozjs_small_table_330 1273"
  "runs_checked mozjs_entry_ok 1273 mozjs_small_table_331 1284"
  "runs_checked mozjs_entry_ok 1284 mozjs_small_table_332 1296"
  "runs_checked mozjs_entry_ok 1296 mozjs_small_table_333 1308"
  "runs_checked mozjs_entry_ok 1308 mozjs_small_table_334 1321"
  "runs_checked mozjs_entry_ok 1321 mozjs_small_table_335 1333"
  "runs_checked mozjs_entry_ok 1333 mozjs_small_table_336 1346"
  "runs_checked mozjs_entry_ok 1346 mozjs_small_table_337 1358"
  "runs_checked mozjs_entry_ok 1358 mozjs_small_table_338 1370"
  "runs_checked mozjs_entry_ok 1370 mozjs_small_table_339 1383"
  "runs_checked mozjs_entry_ok 1383 mozjs_small_table_340 1396"
  "runs_checked mozjs_entry_ok 1396 mozjs_small_table_341 1409"
  by (simp_all add: runs_checked_def mozjs_small_table_324_defs mozjs_small_table_325_defs
    mozjs_small_table_326_defs mozjs_small_table_327_defs mozjs_small_table_328_defs
    mozjs_small_table_329_defs mozjs_small_table_330_defs mozjs_small_table_331_defs
    mozjs_small_table_332_defs mozjs_small_table_333_defs mozjs_small_table_334_defs
    mozjs_small_table_335_defs mozjs_small_table_336_defs mozjs_small_table_337_defs
    mozjs_small_table_338_defs mozjs_small_table_339_defs mozjs_small_table_340_defs
    mozjs_small_table_341_defs mozjs_check_simps)

lemma mozjs_run_pieces_19_ok:
  "runs_checked mozjs_entry_ok 1409 mozjs_small_table_342 1424"
  "runs_checked mozjs_entry_ok 1424 mozjs_small_table_343 1439"
  "runs_checked mozjs_entry_ok 1439 mozjs_small_table_344 1454"
  "runs_checked mozjs_entry_ok 1454 mozjs_small_table_345 1469"
  "runs_checked mozjs_entry_ok 1469 mozjs_small_table_346 1484"
  "runs_checked mozjs_entry_ok 1484 mozjs_small_table_347 1499"
  "runs_checked mozjs_entry_ok 1499 mozjs_small_table_348 1516"
  "runs_checked mozjs_entry_ok 1516 mozjs_small_table_349 1535"
  "runs_checked mozjs_entry_ok 1535 mozjs_small_table_350 1554"
  "runs_checked mozjs_entry_ok 1554 mozjs_small_table_351 1573"
  "runs_checked mozjs_entry_ok 1573 mozjs_small_table_352 1592"
  "runs_checked mozjs_entry_ok 1592 mozjs_small_table_353 1610"
  "runs_checked mozjs_entry_ok 1610 mozjs_small_table_354 1628"
  "runs_checked mozjs_entry_ok 1628 mozjs_small_table_355 1647"
  "runs_checked mozjs_entry_ok 1647 mozjs_small_table_356 1666"
  "runs_checked mozjs_entry_ok 1666 mozjs_small_table_357 1685"
  "runs_checked mozjs_entry_ok 1685 mozjs_small_table_358 1704"
  "runs_checked mozjs_entry_ok 1704 mozjs_small_table_359 1722"
  by (simp_all add: runs_checked_def mozjs_small_table_342_defs mozjs_small_table_343_defs
    mozjs_small_table_344_defs mozjs_small_table_345_defs mozjs_small_table_346_defs
    mozjs_small_table_347_defs mozjs_small_table_348_defs mozjs_small_table_349_defs
    mozjs_small_table_350_defs mozjs_small_table_351_defs mozjs_small_table_352_defs
    mozjs_small_table_353_defs mozjs_small_table_354_defs mozjs_small_table_355_defs
    mozjs_small_table_356_defs mozjs_small_table_357_defs mozjs_small_table_358_defs
    mozjs_small_table_359_defs mozjs_check_simps)

lemma mozjs_run_pieces_20_ok:
  "runs_checked mozjs_entry_ok 1722 mozjs_small_table_360 1741"
  "runs_checked mozjs_entry_ok 1741 mozjs_small_table_361 1761"
  "runs_checked mozjs_entry_ok 1761 mozjs_small_table_362 1785"
  "runs_checked mozjs_entry_ok 1785 mozjs_small_table_363 1809"
  "runs_checked mozjs_entry_ok 1809 mozjs_small_table_364 1833"
  "runs_checked mozjs_entry_ok 1833 mozjs_small_table_365 1857"
  "runs_checked mozjs_entry_ok 1857 mozjs_small_table_366 1879"
  by (simp_all add: runs_checked_def mozjs_small_table_360_defs mozjs_small_table_361_defs
    mozjs_small_table_362_defs mozjs_small_table_363_defs mozjs_small_table_364_defs
    mozjs_small_table_365_defs mozjs_small_table_366_defs mozjs_check_simps)

lemmas mozjs_run_pieces_ok =
  mozjs_run_pieces_0_ok mozjs_run_pieces_1_ok mozjs_run_pieces_2_ok mozjs_run_pieces_3_ok
    mozjs_run_pieces_4_ok mozjs_run_pieces_5_ok mozjs_run_pieces_6_ok mozjs_run_pieces_7_ok
    mozjs_run_pieces_8_ok mozjs_run_pieces_9_ok mozjs_run_pieces_10_ok mozjs_run_pieces_11_ok
    mozjs_run_pieces_12_ok mozjs_run_pieces_13_ok mozjs_run_pieces_14_ok mozjs_run_pieces_15_ok
    mozjs_run_pieces_16_ok mozjs_run_pieces_17_ok mozjs_run_pieces_18_ok mozjs_run_pieces_19_ok
    mozjs_run_pieces_20_ok

lemma mozjs_runs_checked: "runs_checked mozjs_entry_ok mozjs_LARGE_STATE_COUNT mozjs_ts_small_parse_table mozjs_STATE_COUNT"
  unfolding mozjs_ts_small_parse_table_def by ((rule runs_checked_append mozjs_run_pieces_ok)+)

lemma mozjs_runs_ok:
  "check_small mozjs_entry_ok mozjs_LARGE_STATE_COUNT mozjs_ts_small_parse_table_map mozjs_ts_small_parse_table"
  using mozjs_runs_checked unfolding runs_checked_def
  by (blast intro: check_small_runs [OF mozjs_map_states mozjs_map_runs mozjs_runs_contiguous])

end
