(* ===== verification/Mozjs_Parse.thy ===== *)
theory Mozjs_Parse
  imports Mozjs_Check_Rows Mozjs_Check_Runs
begin

text \<open>
  What holds of every entry of the JavaScript tables: its actions exist, and the token it stands under can
  come from the lexers or from the external scanner.
\<close>

lemma mozjs_entry:
  assumes "s < state_count tree_sitter_mozjs" and "x < symbol_count tree_sitter_mozjs"
    and "table_value tree_sitter_mozjs s x \<noteq> 0"
  shows "mozjs_entry_ok s x (table_value tree_sitter_mozjs s x)"
  using mozjs_init.every_entry [OF mozjs_rows_ok _ assms] mozjs_runs_ok by (simp add: mozjs_sizes)

section \<open>Actions\<close>

lemma mozjs_valid_pieces:
  "list_all (\<lambda>(v, run). valid_run tree_sitter_mozjs v run) mozjs_parse_actions_0"
  "list_all (\<lambda>(v, run). valid_run tree_sitter_mozjs v run) mozjs_parse_actions_1"
  "list_all (\<lambda>(v, run). valid_run tree_sitter_mozjs v run) mozjs_parse_actions_2"
  "list_all (\<lambda>(v, run). valid_run tree_sitter_mozjs v run) mozjs_parse_actions_3"
  "list_all (\<lambda>(v, run). valid_run tree_sitter_mozjs v run) mozjs_parse_actions_4"
  "list_all (\<lambda>(v, run). valid_run tree_sitter_mozjs v run) mozjs_parse_actions_5"
  "list_all (\<lambda>(v, run). valid_run tree_sitter_mozjs v run) mozjs_parse_actions_6"
  "list_all (\<lambda>(v, run). valid_run tree_sitter_mozjs v run) mozjs_parse_actions_7"
  "list_all (\<lambda>(v, run). valid_run tree_sitter_mozjs v run) mozjs_parse_actions_8"
  "list_all (\<lambda>(v, run). valid_run tree_sitter_mozjs v run) mozjs_parse_actions_9"
  "list_all (\<lambda>(v, run). valid_run tree_sitter_mozjs v run) mozjs_parse_actions_10"
  "list_all (\<lambda>(v, run). valid_run tree_sitter_mozjs v run) mozjs_parse_actions_11"
  "list_all (\<lambda>(v, run). valid_run tree_sitter_mozjs v run) mozjs_parse_actions_12"
  "list_all (\<lambda>(v, run). valid_run tree_sitter_mozjs v run) mozjs_parse_actions_13"
  "list_all (\<lambda>(v, run). valid_run tree_sitter_mozjs v run) mozjs_parse_actions_14"
  "list_all (\<lambda>(v, run). valid_run tree_sitter_mozjs v run) mozjs_parse_actions_15"
  "list_all (\<lambda>(v, run). valid_run tree_sitter_mozjs v run) mozjs_parse_actions_16"
  "list_all (\<lambda>(v, run). valid_run tree_sitter_mozjs v run) mozjs_parse_actions_17"
  "list_all (\<lambda>(v, run). valid_run tree_sitter_mozjs v run) mozjs_parse_actions_18"
  by (simp_all add: mozjs_action_defs valid_run_def mozjs_sizes action_macros)

lemma mozjs_valid: "list_all (\<lambda>(v, run). valid_run tree_sitter_mozjs v run) mozjs_ts_parse_actions"
  unfolding mozjs_ts_parse_actions_def list_all_append by (intro conjI mozjs_valid_pieces)

definition mozjs_special_ok :: "nat \<Rightarrow> TSParseActionEntry list \<Rightarrow> bool" where
  "mozjs_special_ok v run \<longleftrightarrow>
     (TSParseActionTypeAccept \<in> set (the_actions run) \<longrightarrow> v = 3685) \<and>
     (TSParseActionTypeRecover \<in> set (the_actions run) \<longrightarrow> v = 1)"

lemma mozjs_special_pieces:
  "list_all (\<lambda>(v, run). mozjs_special_ok v run) mozjs_parse_actions_0"
  "list_all (\<lambda>(v, run). mozjs_special_ok v run) mozjs_parse_actions_1"
  "list_all (\<lambda>(v, run). mozjs_special_ok v run) mozjs_parse_actions_2"
  "list_all (\<lambda>(v, run). mozjs_special_ok v run) mozjs_parse_actions_3"
  "list_all (\<lambda>(v, run). mozjs_special_ok v run) mozjs_parse_actions_4"
  "list_all (\<lambda>(v, run). mozjs_special_ok v run) mozjs_parse_actions_5"
  "list_all (\<lambda>(v, run). mozjs_special_ok v run) mozjs_parse_actions_6"
  "list_all (\<lambda>(v, run). mozjs_special_ok v run) mozjs_parse_actions_7"
  "list_all (\<lambda>(v, run). mozjs_special_ok v run) mozjs_parse_actions_8"
  "list_all (\<lambda>(v, run). mozjs_special_ok v run) mozjs_parse_actions_9"
  "list_all (\<lambda>(v, run). mozjs_special_ok v run) mozjs_parse_actions_10"
  "list_all (\<lambda>(v, run). mozjs_special_ok v run) mozjs_parse_actions_11"
  "list_all (\<lambda>(v, run). mozjs_special_ok v run) mozjs_parse_actions_12"
  "list_all (\<lambda>(v, run). mozjs_special_ok v run) mozjs_parse_actions_13"
  "list_all (\<lambda>(v, run). mozjs_special_ok v run) mozjs_parse_actions_14"
  "list_all (\<lambda>(v, run). mozjs_special_ok v run) mozjs_parse_actions_15"
  "list_all (\<lambda>(v, run). mozjs_special_ok v run) mozjs_parse_actions_16"
  "list_all (\<lambda>(v, run). mozjs_special_ok v run) mozjs_parse_actions_17"
  "list_all (\<lambda>(v, run). mozjs_special_ok v run) mozjs_parse_actions_18"
  by (simp_all add: mozjs_action_defs mozjs_special_ok_def action_macros)

lemma mozjs_special: "list_all (\<lambda>(v, run). mozjs_special_ok v run) mozjs_ts_parse_actions"
  unfolding mozjs_ts_parse_actions_def list_all_append by (intro conjI mozjs_special_pieces)

text \<open>
  Property C32. Every non-zero entry of the JavaScript tables can be used: under a token it decodes to at
  least one action, every action names existing states, non-terminals and productions, the input is
  accepted at its end only and recovery starts in the error state only; under a non-terminal it is an existing state.
\<close>

theorem mozjs_tables_well_formed:
  assumes "s < state_count tree_sitter_mozjs" and "x < symbol_count tree_sitter_mozjs"
    and "table_value tree_sitter_mozjs s x \<noteq> 0"
  shows "if x < token_count tree_sitter_mozjs
    then (let as = table_actions tree_sitter_mozjs s x in
      as \<noteq> [] \<and> list_all (action_in_bounds tree_sitter_mozjs) as \<and>
      (TSParseActionTypeAccept \<in> set as \<longrightarrow> x = ts_builtin_sym_end) \<and>
      (TSParseActionTypeRecover \<in> set as \<longrightarrow> s = 0))
    else table_value tree_sitter_mozjs s x < state_count tree_sitter_mozjs"
proof (cases "x < token_count tree_sitter_mozjs")
  case True
  let ?v = "table_value tree_sitter_mozjs s x"
  have entry: "?v \<in> set (map fst mozjs_ts_parse_actions)" "?v = 3685 \<longrightarrow> x = 0" "?v = 1 \<longrightarrow> s = 0"
    using mozjs_entry [OF assms] True by (simp_all add: mozjs_entry_ok_def mozjs_action_key_def mozjs_sizes)
  obtain n r es where run: "(?v, Entry n r # es) \<in> set mozjs_ts_parse_actions"
      "table_actions tree_sitter_mozjs s x = the_actions es" "the_actions es \<noteq> []"
      "list_all (action_in_bounds tree_sitter_mozjs) (the_actions es)"
    using mozjs_init.valid_actions [OF mozjs_valid entry(1) assms(3)] by (auto simp: table_actions_def)
  have "mozjs_special_ok ?v (Entry n r # es)"
    using run(1) mozjs_special by (auto simp: list_all_iff)
  then show ?thesis
    using True run entry(2,3) by (auto simp: mozjs_special_ok_def Let_def)
next
  case False
  then show ?thesis
    using mozjs_entry [OF assms] by (simp add: mozjs_entry_ok_def mozjs_sizes)
qed

lemma mozjs_rows_numbered:
  "numbered 0 mozjs_parse_rows_0 40"
  "numbered 40 mozjs_parse_rows_1 80"
  "numbered 80 mozjs_parse_rows_2 120"
  "numbered 120 mozjs_parse_rows_3 160"
  "numbered 160 mozjs_parse_rows_4 200"
  "numbered 200 mozjs_parse_rows_5 240"
  "numbered 240 mozjs_parse_rows_6 280"
  "numbered 280 mozjs_parse_rows_7 320"
  "numbered 320 mozjs_parse_rows_8 360"
  "numbered 360 mozjs_parse_rows_9 388"
  by (simp_all add: mozjs_parse_rows_0_def mozjs_parse_rows_1_def mozjs_parse_rows_2_def
    mozjs_parse_rows_3_def mozjs_parse_rows_4_def mozjs_parse_rows_5_def mozjs_parse_rows_6_def
    mozjs_parse_rows_7_def mozjs_parse_rows_8_def mozjs_parse_rows_9_def numbered_def upt_rec)

lemma mozjs_rows_states: "numbered 0 mozjs_ts_parse_table mozjs_LARGE_STATE_COUNT"
  unfolding mozjs_ts_parse_table_def by ((rule numbered_append mozjs_rows_numbered)+)

lemma mozjs_start_entry: "table_value tree_sitter_mozjs 1 mozjs_anon_sym_if \<noteq> 0"
proof -
  have "list_all (\<lambda>(k, x). array_of [] mozjs_ts_parse_table k = x) mozjs_parse_rows_0"
    by (rule array_of_piece [OF numbered_distinct [OF mozjs_rows_states]]) (simp add:
      mozjs_ts_parse_table_def)
  then have "array_of [] mozjs_ts_parse_table 1 = mozjs_parse_row_1"
    unfolding mozjs_parse_rows_0_def list.pred_inject prod.case by blast
  then show ?thesis
    by (simp add: mozjs_init.large_value mozjs_sizes mozjs_parse_row_1_def)
qed

theorem mozjs_tables_well_formed_witness:
  "table_actions tree_sitter_mozjs 1 mozjs_anon_sym_if \<noteq> []"
  using mozjs_tables_well_formed [OF _ _ mozjs_start_entry] by (simp add: mozjs_sizes Let_def)

section \<open>The lexers serve the tables\<close>

lemma mozjs_language_facts:
  "lex_modes tree_sitter_mozjs = mozjs_mode" "language_lex tree_sitter_mozjs = mozjs_ts_lex"
  "keyword_lex_fn tree_sitter_mozjs = Some mozjs_ts_lex_keywords"
  "keyword_capture_token tree_sitter_mozjs = mozjs_sym_identifier"
  by (simp_all add: tree_sitter_mozjs_def)

text \<open>
  Property C8. The lexers and the scanner serve the JavaScript parser: for every entry the tables have for a
  token in a state other than the error state, either the external scanner is asked for that token in the
  state's mode, or the lex mode can return it (there is a text whose longest token it is), or it finds
  an identifier on a text that the keyword lexer knows as the token.
\<close>

theorem mozjs_lexer_serves_parser:
  assumes "0 < s" and "s < state_count tree_sitter_mozjs" and "x < token_count tree_sitter_mozjs"
    and "table_value tree_sitter_mozjs s x \<noteq> 0"
  shows "(\<exists>i < external_token_count tree_sitter_mozjs. external_symbol_map tree_sitter_mozjs i = x \<and>
      external_states tree_sitter_mozjs
        (external_lex_state (lex_modes tree_sitter_mozjs s) * external_token_count tree_sitter_mozjs + i)) \<or>
    (\<exists>text. longest_token (language_lex tree_sitter_mozjs) (lex_state (lex_modes tree_sitter_mozjs s)) text x [] \<or>
      longest_token (language_lex tree_sitter_mozjs) (lex_state (lex_modes tree_sitter_mozjs s)) text
        (keyword_capture_token tree_sitter_mozjs) [] \<and>
      (\<exists>kw. keyword_lex_fn tree_sitter_mozjs = Some kw \<and> longest_token kw 0 text x []))"
proof -
  have "x < symbol_count tree_sitter_mozjs" using assms(3) by (simp add: mozjs_sizes)
  then have "mozjs_served (mozjs_mode s) x"
    using mozjs_entry [OF assms(2) _ assms(4)] assms(1,3) by (simp add: mozjs_entry_ok_def mozjs_sizes)
  then consider (external) "mozjs_external_pair (external_lex_state (mozjs_mode s)) x"
    | (lexer) w where "mozjs_sample_ok (lex_state (mozjs_mode s)) x w"
    using mozjs_pair_sample by (auto simp: mozjs_served_def)
  then show ?thesis
  proof cases
    case external
    then show ?thesis by (simp add: mozjs_external_pair_def mozjs_language_facts mozjs_sizes)
  next
    case lexer
    then show ?thesis unfolding mozjs_sample_ok_def mozjs_language_facts munch_spec by blast
  qed
qed

theorem mozjs_lexer_serves_parser_witness:
  "(\<exists>i < external_token_count tree_sitter_mozjs. external_symbol_map tree_sitter_mozjs i = mozjs_anon_sym_if \<and>
      external_states tree_sitter_mozjs
        (external_lex_state (lex_modes tree_sitter_mozjs 1) * external_token_count tree_sitter_mozjs + i)) \<or>
    (\<exists>text. longest_token (language_lex tree_sitter_mozjs) (lex_state (lex_modes tree_sitter_mozjs 1)) text
        mozjs_anon_sym_if [] \<or>
      longest_token (language_lex tree_sitter_mozjs) (lex_state (lex_modes tree_sitter_mozjs 1)) text
        (keyword_capture_token tree_sitter_mozjs) [] \<and>
      (\<exists>kw. keyword_lex_fn tree_sitter_mozjs = Some kw \<and> longest_token kw 0 text mozjs_anon_sym_if []))"
  by (rule mozjs_lexer_serves_parser [OF _ _ _ mozjs_start_entry]) (simp_all add: mozjs_sizes)

end
