(* ===== verification/Mozjs_External.thy ===== *)
theory Mozjs_External
  imports Mozjs_Table Scan_Mozjs
begin

text \<open>
  The sets of valid symbols the parser passes to the JavaScript scanner: the rows of
  \<^verbatim>\<open>ts_external_scanner_states\<close>, read by the scanner's own token numbers. The rows with an
  automatic semicolon are those of the properties of \<^theory_text>\<open>Scan_Mozjs\<close>, apart from row 1, which is
  the error state's: it also has template characters, and the scanner refuses it.
\<close>

definition mozjs_valid_symbols :: "nat \<Rightarrow> mozjs_TokenType \<Rightarrow> bool" where
  "mozjs_valid_symbols e t \<longleftrightarrow>
     external_states tree_sitter_mozjs (e * mozjs_EXTERNAL_TOKEN_COUNT + mozjs_symbol t)"

lemma mozjs_valid_eval:
  "mozjs_valid_symbols e t \<longleftrightarrow>
     flat_table False mozjs_EXTERNAL_TOKEN_COUNT mozjs_ts_external_scanner_states
       (e * mozjs_EXTERNAL_TOKEN_COUNT + mozjs_symbol t)"
  by (simp add: mozjs_valid_symbols_def tree_sitter_mozjs_def)

lemma mozjs_semicolon_rows:
  assumes "e < 10"
  shows "mozjs_valid_symbols e AUTOMATIC_SEMICOLON \<and> \<not> mozjs_valid_symbols e TEMPLATE_CHARS \<longleftrightarrow> e = 3 \<or> e = 5"
    and "e = 3 \<or> e = 5 \<Longrightarrow> \<not> mozjs_valid_symbols e JSX_TEXT"
    and "e = 3 \<or> e = 5 \<Longrightarrow> mozjs_valid_symbols e TERNARY_QMARK \<longleftrightarrow> e = 3"
proof -
  have "e \<in> set [0, 1, 2, 3, 4, 5, 6, 7, 8, 9]"
    using assms by auto
  then show "mozjs_valid_symbols e AUTOMATIC_SEMICOLON \<and> \<not> mozjs_valid_symbols e TEMPLATE_CHARS \<longleftrightarrow> e = 3 \<or> e = 5"
    unfolding set_simps insert_iff empty_iff
    by (elim disjE; simp add: mozjs_valid_eval flat_table_def mozjs_ts_external_scanner_states_def)
  show "e = 3 \<or> e = 5 \<Longrightarrow> \<not> mozjs_valid_symbols e JSX_TEXT"
    and "e = 3 \<or> e = 5 \<Longrightarrow> mozjs_valid_symbols e TERNARY_QMARK \<longleftrightarrow> e = 3"
    by (auto simp: mozjs_valid_eval flat_table_def mozjs_ts_external_scanner_states_def)
qed

end
