(* ===== verification/Rust_Bytes.thy ===== *)
theory Rust_Bytes
  imports Main "HOL-Library.Monad_Syntax"
begin

text \<open>
  What the Rust crates use of their language and its standard library. A \<^verbatim>\<open>u8\<close> is a
  \<^typ>\<open>char\<close> (a value of eight bits), a byte slice or buffer a list of them, a \<^verbatim>\<open>usize\<close>
  a \<^typ>\<open>nat\<close>: it only counts positions in a buffer, and a Rust allocation has at most
  \<^verbatim>\<open>isize::MAX\<close> bytes, so the sums of two positions that the code forms do not wrap. What
  panics is \<^term>\<open>None\<close>: an index or a range outside its slice, a \<^verbatim>\<open>usize\<close>
  subtraction below zero, \<^verbatim>\<open>expect\<close> on an error.
\<close>

type_synonym bytes = string

named_theorems rust_simps \<open>defining equations of the Rust model, to evaluate it on concrete input\<close>

section \<open>Slices\<close>

definition byte_at :: "'a list \<Rightarrow> nat \<Rightarrow> 'a option" where
  "byte_at xs i = (if i < length xs then Some (xs ! i) else None)"

definition slice :: "'a list \<Rightarrow> nat \<Rightarrow> nat \<Rightarrow> 'a list option" where
  "slice xs a b = (if a \<le> b \<and> b \<le> length xs then Some (take (b - a) (drop a xs)) else None)"

definition usize_sub :: "nat \<Rightarrow> nat \<Rightarrow> nat option" where
  "usize_sub a b = (if b \<le> a then Some (a - b) else None)"

text \<open>The elements of \<open>xs\<close> from \<open>a\<close> up to \<open>b\<close>, when both are in range.\<close>

definition span :: "'a list \<Rightarrow> nat \<Rightarrow> nat \<Rightarrow> 'a list" where
  "span xs a b = take (b - a) (drop a xs)"

lemma byte_at_in [simp]: "i < length xs \<Longrightarrow> byte_at xs i = Some (xs ! i)"
  by (simp add: byte_at_def)

lemma slice_in [simp]: "\<lbrakk> a \<le> b; b \<le> length xs \<rbrakk> \<Longrightarrow> slice xs a b = Some (span xs a b)"
  by (simp add: slice_def span_def)

lemma usize_sub_in [simp]: "b \<le> a \<Longrightarrow> usize_sub a b = Some (a - b)"
  by (simp add: usize_sub_def)

lemma span_empty [simp]: "span xs a a = []"
  by (simp add: span_def)

lemma length_span [simp]: "\<lbrakk> a \<le> b; b \<le> length xs \<rbrakk> \<Longrightarrow> length (span xs a b) = b - a"
  by (simp add: span_def)

lemma span_append:
  assumes "a \<le> b" "b \<le> c"
  shows "span xs a c = span xs a b @ span xs b c"
proof -
  have c: "c - a = (b - a) + (c - b)" using assms by simp
  have "b = (b - a) + a" using assms by simp
  then have "drop b xs = drop (b - a) (drop a xs)" by (metis drop_drop)
  then show ?thesis unfolding span_def c by (simp add: take_add)
qed

lemma span_Suc: "\<lbrakk> a \<le> b; b < length xs \<rbrakk> \<Longrightarrow> span xs a (Suc b) = span xs a b @ [xs ! b]"
  by (simp add: span_def Suc_diff_le take_Suc_conv_app_nth)

lemma span_all: "span xs a (length xs) = drop a xs"
  by (simp add: span_def)

lemma span_one: "i < length xs \<Longrightarrow> span xs i (Suc i) = [xs ! i]"
  using span_Suc[of i i xs] by simp

lemma drop_span: "\<lbrakk> a \<le> b; b \<le> length xs \<rbrakk> \<Longrightarrow> drop a xs = span xs a b @ drop b xs"
  by (metis span_all span_append)

lemma nth_span: "\<lbrakk> a \<le> b; b \<le> length xs; i < b - a \<rbrakk> \<Longrightarrow> span xs a b ! i = xs ! (a + i)"
  by (simp add: span_def)

lemma span_eq_Nil [simp]: "b \<le> length xs \<Longrightarrow> span xs a b = [] \<longleftrightarrow> b \<le> a"
  by (auto simp: span_def)

lemma span_map_nth: "b \<le> length xs \<Longrightarrow> span xs a b = map ((!) xs) [a..<b]"
  by (rule nth_equalityI) (auto simp: span_def)

lemma span_eqI: "drop a xs = ys @ zs \<Longrightarrow> span xs a (a + length ys) = ys"
  by (simp add: span_def)

text \<open>\<^verbatim>\<open>position\<close> and \<^verbatim>\<open>rposition\<close> of slice iterators.\<close>

definition position :: "('a \<Rightarrow> bool) \<Rightarrow> 'a list \<Rightarrow> nat option" where
  "position f xs = (let n = length (takeWhile (\<lambda>x. \<not> f x) xs) in if n < length xs then Some n else None)"

definition rposition :: "('a \<Rightarrow> bool) \<Rightarrow> 'a list \<Rightarrow> nat option" where
  "rposition f xs = map_option (\<lambda>n. length xs - 1 - n) (position f (rev xs))"

lemma position_split:
  "position f xs = (if \<exists>x\<in>set xs. f x then Some (length (takeWhile (\<lambda>x. \<not> f x) xs)) else None)"
proof -
  have "length (takeWhile (\<lambda>x. \<not> f x) xs) < length xs \<longleftrightarrow> (\<exists>x\<in>set xs. f x)"
    by (induction xs) auto
  then show ?thesis by (simp add: position_def Let_def)
qed

section \<open>Loops\<close>

text \<open>
  A \<^verbatim>\<open>for\<close> loop over a list whose body changes the state \<open>s\<close> or panics, and the rule for
  its invariants: \<open>I\<close> relates the elements done so far to the state.
\<close>

fun for_each :: "('a \<Rightarrow> 's \<Rightarrow> 's option) \<Rightarrow> 'a list \<Rightarrow> 's \<Rightarrow> 's option" where
  "for_each f [] s = Some s"
| "for_each f (x # xs) s = do { s \<leftarrow> f x s; for_each f xs s }"

lemma for_each_invariant:
  assumes "I [] s"
    and "\<And>xs x ys s. \<lbrakk> zs = xs @ x # ys; I xs s \<rbrakk> \<Longrightarrow> \<exists>s'. f x s = Some s' \<and> I (xs @ [x]) s'"
  shows "\<exists>s'. for_each f zs s = Some s' \<and> I zs s'"
proof -
  have "\<exists>s'. for_each f ys s = Some s' \<and> I zs s'" if "zs = xs @ ys" "I xs s" for xs ys s
    using that
  proof (induction ys arbitrary: xs s)
    case (Cons y ys)
    obtain s' where "f y s = Some s'" "I (xs @ [y]) s'" using assms(2)[OF Cons.prems] by blast
    then show ?case using Cons.IH[of "xs @ [y]" s'] Cons.prems(1) by auto
  qed simp
  from this[of "[]" zs s] assms(1) show ?thesis by simp
qed

section \<open>Characters\<close>

text \<open>The ASCII predicates of \<^verbatim>\<open>u8\<close>.\<close>

definition is_ascii_uppercase :: "char \<Rightarrow> bool" where
  "is_ascii_uppercase c \<longleftrightarrow> (let n = (of_char c :: nat) in 65 \<le> n \<and> n \<le> 90)"

definition is_ascii_lowercase :: "char \<Rightarrow> bool" where
  "is_ascii_lowercase c \<longleftrightarrow> (let n = (of_char c :: nat) in 97 \<le> n \<and> n \<le> 122)"

definition is_ascii_digit :: "char \<Rightarrow> bool" where
  "is_ascii_digit c \<longleftrightarrow> (let n = (of_char c :: nat) in 48 \<le> n \<and> n \<le> 57)"

definition is_ascii_hexdigit :: "char \<Rightarrow> bool" where
  "is_ascii_hexdigit c \<longleftrightarrow> is_ascii_digit c \<or>
     (let n = (of_char c :: nat) in 65 \<le> n \<and> n \<le> 70 \<or> 97 \<le> n \<and> n \<le> 102)"

lemmas ascii_defs =
  is_ascii_uppercase_def is_ascii_lowercase_def is_ascii_digit_def is_ascii_hexdigit_def

text \<open>
  \<^verbatim>\<open>str::from_utf8\<close>: the bytes, when they are well-formed UTF-8 (the Unicode
  standard, table 3-7): no overlong forms, no surrogates, nothing above U+10FFFF.
\<close>

definition utf8_cont :: "nat \<Rightarrow> bool" where
  "utf8_cont b \<longleftrightarrow> 0x80 \<le> b \<and> b \<le> 0xBF"

definition utf8_second :: "nat \<Rightarrow> nat \<Rightarrow> bool" where
  "utf8_second a b \<longleftrightarrow> utf8_cont b \<and> (a = 0xE0 \<longrightarrow> 0xA0 \<le> b) \<and> (a = 0xED \<longrightarrow> b \<le> 0x9F) \<and>
     (a = 0xF0 \<longrightarrow> 0x90 \<le> b) \<and> (a = 0xF4 \<longrightarrow> b \<le> 0x8F)"

fun utf8_valid :: "nat list \<Rightarrow> bool" where
  "utf8_valid [] \<longleftrightarrow> True"
| "utf8_valid (a # bs) \<longleftrightarrow>
     (if a \<le> 0x7F then utf8_valid bs
      else if 0xC2 \<le> a \<and> a \<le> 0xDF then
        (case bs of b # r \<Rightarrow> utf8_cont b \<and> utf8_valid r | _ \<Rightarrow> False)
      else if 0xE0 \<le> a \<and> a \<le> 0xEF then
        (case bs of b # c # r \<Rightarrow> utf8_second a b \<and> utf8_cont c \<and> utf8_valid r | _ \<Rightarrow> False)
      else if 0xF0 \<le> a \<and> a \<le> 0xF4 then
        (case bs of b # c # d # r \<Rightarrow>
            utf8_second a b \<and> utf8_cont c \<and> utf8_cont d \<and> utf8_valid r
         | _ \<Rightarrow> False)
      else False)"

definition from_utf8 :: "bytes \<Rightarrow> string option" where
  "from_utf8 bs = (if utf8_valid (map of_char bs) then Some bs else None)"

definition ascii_bytes :: "bytes \<Rightarrow> bool" where
  "ascii_bytes bs \<longleftrightarrow> (\<forall>c\<in>set bs. (of_char c :: nat) \<le> 0x7F)"

lemma from_utf8_ascii: "ascii_bytes bs \<Longrightarrow> from_utf8 bs = Some bs"
proof -
  assume "ascii_bytes bs"
  then have "utf8_valid (map of_char bs)"
    by (induction bs) (simp_all add: ascii_bytes_def)
  then show ?thesis by (simp add: from_utf8_def)
qed

declare byte_at_def [rust_simps] slice_def [rust_simps] usize_sub_def [rust_simps]
  ascii_defs [rust_simps] from_utf8_def [rust_simps] utf8_cont_def [rust_simps]
  utf8_second_def [rust_simps]

end
