(* ===== verification/Rust_Path.thy ===== *)
theory Rust_Path
  imports Rust_Bytes "HOL-Library.Sublist" "HOL-Library.Char_ord" "HOL-Library.List_Lexorder"
begin

text \<open>
  \<^verbatim>\<open>std::path\<close> on Unix, as far as the crates use it. A path is its components: equality,
  hashing, order, \<^verbatim>\<open>starts_with\<close> and the rest of the interface are defined on them, so two
  spellings of a path (\<^verbatim>\<open>a//b\<close> and \<^verbatim>\<open>a/b\<close>) are one key of a map. \<open>path_of_str\<close> is
  \<^verbatim>\<open>Path::new\<close>, \<open>path_str\<close> the spelling without what the components do not show.
\<close>

datatype component = RootDir | CurDir | ParentDir | Normal string

type_synonym path = "component list"

section \<open>The order\<close>

text \<open>
  The derived order: by the variant, then by the name. Paths are ordered by their components, which
  is the order of lists.
\<close>

fun component_rank :: "component \<Rightarrow> nat" where
  "component_rank RootDir = 0"
| "component_rank CurDir = 1"
| "component_rank ParentDir = 2"
| "component_rank (Normal n) = 3"

fun component_name :: "component \<Rightarrow> string" where
  "component_name (Normal n) = n"
| "component_name _ = []"

lemma component_eqI: "\<lbrakk> component_rank a = component_rank b; component_name a = component_name b \<rbrakk> \<Longrightarrow> a = b"
  by (cases a; cases b) auto

instantiation component :: linorder
begin

definition less_component :: "component \<Rightarrow> component \<Rightarrow> bool" where
  "less_component a b \<longleftrightarrow> component_rank a < component_rank b \<or>
     component_rank a = component_rank b \<and> component_name a < component_name b"

definition less_eq_component :: "component \<Rightarrow> component \<Rightarrow> bool" where
  "less_eq_component a b \<longleftrightarrow> component_rank a < component_rank b \<or>
     component_rank a = component_rank b \<and> component_name a \<le> component_name b"

instance
  by standard (auto simp: less_component_def less_eq_component_def intro: component_eqI)

end

section \<open>Spelling\<close>

fun split_on :: "char \<Rightarrow> string \<Rightarrow> string list" where
  "split_on s [] = [[]]"
| "split_on s (c # cs) =
     (if c = s then [] # split_on s cs
      else (case split_on s cs of [] \<Rightarrow> [[c]] | w # ws \<Rightarrow> (c # w) # ws))"

definition parse_component :: "string \<Rightarrow> component list" where
  "parse_component w =
     (if w = [] \<or> w = ''.'' then [] else if w = ''..'' then [ParentDir] else [Normal w])"

definition path_of_str :: "string \<Rightarrow> path" where
  "path_of_str s =
     (let ws = split_on (CHR ''/'') s; rest = concat (map parse_component ws) in
      if take 1 s = ''/'' then RootDir # rest
      else if hd ws = ''.'' then CurDir # rest else rest)"

fun component_str :: "component \<Rightarrow> string" where
  "component_str RootDir = ''/''"
| "component_str CurDir = ''.''"
| "component_str ParentDir = ''..''"
| "component_str (Normal n) = n"

fun join_str :: "string list \<Rightarrow> string" where
  "join_str [] = []"
| "join_str [w] = w"
| "join_str (w # ws) = w @ CHR ''/'' # join_str ws"

definition path_str :: "path \<Rightarrow> string" where
  "path_str p =
     (if take 1 p = [RootDir] then CHR ''/'' # join_str (map component_str (tl p))
      else join_str (map component_str p))"

definition path_to_str :: "path \<Rightarrow> string option" where
  "path_to_str p = from_utf8 (path_str p)"

section \<open>The interface\<close>

definition path_parent :: "path \<Rightarrow> path option" where
  "path_parent p = (if p = [] \<or> last p = RootDir then None else Some (butlast p))"

definition path_pop :: "path \<Rightarrow> path" where
  "path_pop p = (case path_parent p of None \<Rightarrow> p | Some q \<Rightarrow> q)"

definition path_file_name :: "path \<Rightarrow> string option" where
  "path_file_name p =
     (if p = [] then None else case last p of Normal n \<Rightarrow> Some n | _ \<Rightarrow> None)"

text \<open>\<open>join\<close> and \<open>push\<close>: an absolute path replaces, and a leading dot only counts at the front.\<close>

definition path_join :: "path \<Rightarrow> path \<Rightarrow> path" where
  "path_join p q =
     (if take 1 q = [RootDir] \<or> p = [] then q
      else p @ (if take 1 q = [CurDir] then tl q else q))"

definition path_starts_with :: "path \<Rightarrow> path \<Rightarrow> bool" where
  "path_starts_with p q \<longleftrightarrow> prefix q p"

definition path_ends_with :: "path \<Rightarrow> path \<Rightarrow> bool" where
  "path_ends_with p q \<longleftrightarrow> suffix q p"

definition path_strip_prefix :: "path \<Rightarrow> path \<Rightarrow> path option" where
  "path_strip_prefix p q = (if prefix q p then Some (drop (length q) p) else None)"

function path_ancestors :: "path \<Rightarrow> path list" where
  "path_ancestors p = p # (case path_parent p of None \<Rightarrow> [] | Some q \<Rightarrow> path_ancestors q)"
  by pat_completeness auto
termination
  by (relation "measure length") (auto simp: path_parent_def split: if_splits)

declare path_ancestors.simps [simp del]

declare path_of_str_def [rust_simps] parse_component_def [rust_simps] path_str_def [rust_simps]
  path_to_str_def [rust_simps] path_parent_def [rust_simps] path_pop_def [rust_simps]
  path_file_name_def [rust_simps] path_join_def [rust_simps] path_starts_with_def [rust_simps]
  path_ends_with_def [rust_simps] path_strip_prefix_def [rust_simps] path_ancestors.simps [rust_simps]

section \<open>Laws\<close>

text \<open>What \<^const>\<open>path_of_str\<close> yields: no component but the first is a root or a dot, and names are names.\<close>

primrec wf_component :: "component \<Rightarrow> bool" where
  "wf_component RootDir \<longleftrightarrow> False"
| "wf_component CurDir \<longleftrightarrow> False"
| "wf_component ParentDir \<longleftrightarrow> True"
| "wf_component (Normal n) \<longleftrightarrow> n \<noteq> [] \<and> CHR ''/'' \<notin> set n \<and> n \<noteq> ''.'' \<and> n \<noteq> ''..''"

definition wf_path :: "path \<Rightarrow> bool" where
  "wf_path p \<longleftrightarrow> list_all wf_component (if p \<noteq> [] \<and> (hd p = RootDir \<or> hd p = CurDir) then tl p else p)"

lemma split_on_not_Nil [simp]: "split_on s cs \<noteq> []"
  by (induction cs) (auto split: list.split)

lemma split_on_word: "s \<notin> set w \<Longrightarrow> split_on s w = [w]"
  by (induction w) auto

lemma split_on_append: "s \<notin> set w \<Longrightarrow> split_on s (w @ s # cs) = w # split_on s cs"
  by (induction w) auto

lemma split_on_words: "list_all (\<lambda>w. s \<notin> set w) (split_on s cs)"
  by (induction cs) (auto split: list.split)

lemma split_join: "\<lbrakk> ws \<noteq> []; list_all (\<lambda>w. CHR ''/'' \<notin> set w) ws \<rbrakk> \<Longrightarrow> split_on (CHR ''/'') (join_str ws) = ws"
  by (induction ws rule: join_str.induct) (auto simp: split_on_word split_on_append)

lemma wf_component_str:
  "wf_component c \<Longrightarrow> CHR ''/'' \<notin> set (component_str c) \<and> component_str c \<noteq> [] \<and>
    component_str c \<noteq> ''.'' \<and> parse_component (component_str c) = [c]"
  by (cases c) (auto simp: parse_component_def)

lemma wf_components_str:
  "list_all wf_component p \<Longrightarrow> list_all (\<lambda>w. CHR ''/'' \<notin> set w) (map component_str p) \<and>
    concat (map parse_component (map component_str p)) = p"
  by (induction p) (simp_all add: wf_component_str)

lemma parse_components_wf: "list_all (\<lambda>w. CHR ''/'' \<notin> set w) ws \<Longrightarrow>
    list_all wf_component (concat (map parse_component ws))"
  by (induction ws) (auto simp: parse_component_def)

lemma path_of_str_wf: "wf_path (path_of_str s)"
proof -
  have w: "list_all wf_component (concat (map parse_component (split_on (CHR ''/'') s)))"
    by (rule parse_components_wf[OF split_on_words])
  then have "hd (concat (map parse_component (split_on (CHR ''/'') s))) \<notin> {RootDir, CurDir}"
    if "concat (map parse_component (split_on (CHR ''/'') s)) \<noteq> []"
    using that by (cases "concat (map parse_component (split_on (CHR ''/'') s))") auto
  with w show ?thesis by (auto simp: wf_path_def path_of_str_def Let_def)
qed

text \<open>Parsing is left inverse to spelling.\<close>

lemma path_of_str_path_str: "wf_path p \<Longrightarrow> path_of_str (path_str p) = p"
proof -
  assume wf: "wf_path p"
  consider (root) q where "p = RootDir # q" "list_all wf_component q"
    | (dot) q where "p = CurDir # q" "list_all wf_component q"
    | (rel) "list_all wf_component p"
    using wf by (cases p) (auto simp: wf_path_def split: if_splits)
  then show ?thesis
  proof cases
    case root
    then show ?thesis
      using wf_components_str[of q] split_join[of "map component_str q"]
      by (cases "q = []") (auto simp: path_str_def path_of_str_def parse_component_def Let_def)
  next
    case dot
    have j: "join_str (''.'' # map component_str q) =
        CHR ''.'' # (if q = [] then [] else CHR ''/'' # join_str (map component_str q))"
      by (cases q) auto
    then show ?thesis
      using dot wf_components_str[of q] split_join[of "map component_str q"]
      by (cases "q = []") (auto simp: path_str_def path_of_str_def parse_component_def Let_def)
  next
    case rel
    show ?thesis
    proof (cases p)
      case Nil
      then show ?thesis by (simp add: path_str_def path_of_str_def parse_component_def)
    next
      case (Cons c q)
      then have c: "wf_component c" "c \<noteq> RootDir" using rel by auto
      let ?ws = "map component_str p"
      have "take 1 (join_str ?ws) \<noteq> ''/''"
        using wf_component_str[OF c(1)] Cons by (cases "component_str c"; cases q) auto
      moreover have "split_on (CHR ''/'') (join_str ?ws) = ?ws"
        using split_join[of ?ws] wf_components_str[OF rel] Cons by simp
      ultimately show ?thesis
        using Cons c wf_components_str[OF rel] wf_component_str[OF c(1)]
        by (simp add: path_str_def path_of_str_def Let_def)
    qed
  qed
qed

end
