(* ===== verification/Guess_File.thy ===== *)
theory Guess_File
  imports Rust_Path
begin

text \<open>
  \<open>guess_file\<close> of \<^verbatim>\<open>big-code-analysis-ast/src/tools.rs\<close>: which file an
  \<^verbatim>\<open>#include\<close> means. The candidates are the known files with the base name of the include;
  a chain of strategies looks for one candidate, each by a weaker signal, and the last takes the
  nearest. \<^term>\<open>None\<close> is a panic (the \<^verbatim>\<open>expect\<close>s of \<open>get_paths_dist\<close>).
\<close>

section \<open>Paths\<close>

fun normalize_step :: "path \<Rightarrow> component \<Rightarrow> path" where
  "normalize_step ret RootDir = path_join ret [RootDir]"
| "normalize_step ret CurDir = ret"
| "normalize_step ret ParentDir = path_pop ret"
| "normalize_step ret (Normal c) = path_join ret [Normal c]"

definition normalize_path :: "path \<Rightarrow> path" where
  "normalize_path p = foldl normalize_step [] p"

text \<open>The loop over the ancestors; the inner option is the result of the function.\<close>

fun dist_loop :: "path \<Rightarrow> path \<Rightarrow> path list \<Rightarrow> nat option option" where
  "dist_loop path1 path2 [] = Some None"
| "dist_loop path1 path2 (ancestor # rest) =
     (if path_starts_with path2 ancestor \<and> ancestor \<noteq> [] then do {
        p1 \<leftarrow> path_strip_prefix path1 ancestor;
        p2 \<leftarrow> path_strip_prefix path2 ancestor;
        Some (Some (length p1 + length p2))
      } else dist_loop path1 path2 rest)"

definition get_paths_dist :: "path \<Rightarrow> path \<Rightarrow> nat option option" where
  "get_paths_dist path1 path2 = dist_loop path1 path2 (path_ancestors path1)"

section \<open>The strategies\<close>

definition unique_filter :: "path list \<Rightarrow> path \<Rightarrow> (path \<Rightarrow> bool) \<Rightarrow> path list option" where
  "unique_filter possibilities current_path pred =
     (let matched = filter (\<lambda>p. current_path \<noteq> p \<and> pred p) possibilities
      in if length matched = 1 then Some matched else None)"

definition or_else :: "'a option \<Rightarrow> 'a option \<Rightarrow> 'a option" where
  "or_else x y = (case x of None \<Rightarrow> y | Some a \<Rightarrow> Some a)"

definition resolve_against_resolved :: "path list \<Rightarrow> path \<Rightarrow> path option \<Rightarrow> path list option" where
  "resolve_against_resolved possibilities current_path resolved = do {
     r \<leftarrow> resolved;
     or_else (unique_filter possibilities current_path (\<lambda>p. p = r))
       (unique_filter possibilities current_path (\<lambda>p. path_ends_with p r))
   }"

definition resolve_against_parent :: "path list \<Rightarrow> path \<Rightarrow> path list option" where
  "resolve_against_parent possibilities current_path = do {
     parent \<leftarrow> path_parent current_path;
     unique_filter possibilities current_path (\<lambda>p. path_starts_with p parent)
   }"

definition usize_MAX :: nat where
  "usize_MAX = 2 ^ 64 - 1"

fun min_distance_loop :: "path \<Rightarrow> path list \<Rightarrow> nat \<Rightarrow> path list \<Rightarrow> path list option" where
  "min_distance_loop current_path [] dist_min path_min = Some path_min"
| "min_distance_loop current_path (p # ps) dist_min path_min =
     (if current_path = p then min_distance_loop current_path ps dist_min path_min
      else do {
        d \<leftarrow> get_paths_dist current_path p;
        case d of
          None \<Rightarrow> min_distance_loop current_path ps dist_min path_min
        | Some dist \<Rightarrow>
            if dist < dist_min then min_distance_loop current_path ps dist [p]
            else if dist = dist_min then min_distance_loop current_path ps dist_min (path_min @ [p])
            else min_distance_loop current_path ps dist_min path_min
      })"

definition min_distance_candidates :: "path list \<Rightarrow> path \<Rightarrow> path list option" where
  "min_distance_candidates possibilities current_path =
     min_distance_loop current_path possibilities usize_MAX []"

definition strip_mozilla :: "string \<Rightarrow> string" where
  "strip_mozilla s = (if prefix ''mozilla/'' s then drop (length ''mozilla/'') s else s)"

definition guess_file :: "path \<Rightarrow> string \<Rightarrow> (string \<Rightarrow> path list option) \<Rightarrow> path list option" where
  "guess_file current_path include_path all_files =
     (let include_str = strip_mozilla include_path;
          resolved_path = map_option (\<lambda>parent. normalize_path (path_join parent (path_of_str include_str)))
            (path_parent current_path);
          include_path = normalize_path (path_of_str include_str)
      in case Option.bind (path_file_name include_path) from_utf8 of
           None \<Rightarrow> Some []
         | Some file_name \<Rightarrow>
             (case all_files file_name of
                None \<Rightarrow> Some []
              | Some possibilities \<Rightarrow>
                  if length possibilities = 1 then Some possibilities
                  else case or_else (resolve_against_resolved possibilities current_path resolved_path)
                         (or_else (unique_filter possibilities current_path
                                     (\<lambda>p. path_ends_with p include_path))
                            (resolve_against_parent possibilities current_path)) of
                         Some matched \<Rightarrow> Some matched
                       | None \<Rightarrow> min_distance_candidates possibilities current_path))"

declare normalize_path_def [rust_simps] get_paths_dist_def [rust_simps] unique_filter_def [rust_simps]
  or_else_def [rust_simps] resolve_against_resolved_def [rust_simps]
  resolve_against_parent_def [rust_simps] usize_MAX_def [rust_simps]
  min_distance_candidates_def [rust_simps] strip_mozilla_def [rust_simps] guess_file_def [rust_simps]

section \<open>The distance\<close>

text \<open>What the distance should be: the steps up to the last common directory, and down from it.\<close>

definition tree_distance :: "path \<Rightarrow> path \<Rightarrow> nat option" where
  "tree_distance p q =
     (let n = length (longest_common_prefix p q)
      in if n = 0 then None else Some (length p + length q - 2 * n))"

lemma longest_common_prefix_prefix: "prefix a q \<Longrightarrow> longest_common_prefix a q = a"
  by (induction a q rule: longest_common_prefix.induct) auto

lemma longest_common_prefix_butlast:
  "\<not> prefix a q \<Longrightarrow> longest_common_prefix a q = longest_common_prefix (butlast a) q"
proof (induction a arbitrary: q)
  case (Cons x xs)
  then show ?case by (cases q; cases xs) auto
qed simp

lemma longest_common_prefix_sym: "longest_common_prefix p q = longest_common_prefix q p"
  by (induction p q rule: longest_common_prefix.induct) auto

lemma wf_path_root: "wf_path p \<Longrightarrow> RootDir \<notin> set (tl p)"
  by (cases p) (auto simp: wf_path_def list_all_iff split: if_splits)

lemma dist_loop_ancestors:
  assumes "RootDir \<notin> set (tl a)" "prefix a p"
  shows "dist_loop p q (path_ancestors a) =
    Some (let n = length (longest_common_prefix a q)
          in if n = 0 then None else Some (length p + length q - 2 * n))"
  using assms
proof (induction a rule: path_ancestors.induct)
  case (1 a)
  show ?case
  proof (cases "prefix a q \<and> a \<noteq> []")
    case True
    then show ?thesis using 1(3) prefix_length_le[of a p] prefix_length_le[of a q]
      by (subst path_ancestors.simps)
         (simp add: path_starts_with_def path_strip_prefix_def longest_common_prefix_prefix Let_def)
  next
    case False
    show ?thesis
    proof (cases "path_parent a")
      case None
      then have "a = [] \<or> last a = RootDir" by (auto simp: path_parent_def split: if_splits)
      moreover have "tl a = [] \<or> last a \<noteq> RootDir" using 1(2) by (metis last_in_set last_tl)
      ultimately have "a = [] \<or> a = [RootDir] \<and> \<not> prefix a q"
        using False by (cases a) auto
      then have "longest_common_prefix a q = []" by (cases q) auto
      then show ?thesis using False None
        by (subst path_ancestors.simps) (auto simp: path_starts_with_def)
    next
      case (Some b)
      then have b: "b = butlast a" "a \<noteq> []" by (auto simp: path_parent_def split: if_splits)
      then have "\<not> prefix a q" using False by simp
      moreover have "RootDir \<notin> set (tl b)" "prefix b p"
        using 1(2,3) b in_set_butlastD[of RootDir "tl a"]
        by (auto simp: butlast_tl intro: prefix_order.trans[OF prefixeq_butlast])
      ultimately show ?thesis
        using 1(1)[OF Some] b False longest_common_prefix_butlast[of a q] Some
        by (subst path_ancestors.simps) (auto simp: path_starts_with_def)
    qed
  qed
qed

lemma get_paths_dist_eq: "wf_path p \<Longrightarrow> get_paths_dist p q = Some (tree_distance p q)"
  using dist_loop_ancestors[of p p q] by (simp add: get_paths_dist_def wf_path_root tree_distance_def)

lemma tree_distance_sym: "tree_distance p q = tree_distance q p"
  by (simp add: tree_distance_def longest_common_prefix_sym[of q p] add.commute)

text \<open>
  The distance of two paths is found without a panic: the number of steps from one to
  the other through the last directory they share, when they share one. It is symmetric.
\<close>

theorem paths_dist_is_tree_distance:
  assumes "wf_path p" "wf_path q"
  shows "get_paths_dist p q = Some (tree_distance p q) \<and> get_paths_dist q p = get_paths_dist p q"
  using assms by (simp add: get_paths_dist_eq tree_distance_sym)

theorem paths_dist_is_tree_distance_witness:
  "get_paths_dist (path_of_str ''src/lib/a.c'') (path_of_str ''src/x/y/a.h'') =
     Some (tree_distance (path_of_str ''src/lib/a.c'') (path_of_str ''src/x/y/a.h'')) \<and>
   tree_distance (path_of_str ''src/lib/a.c'') (path_of_str ''src/x/y/a.h'') = Some 5"
  by (rule conjI[OF conjunct1[OF paths_dist_is_tree_distance[OF path_of_str_wf path_of_str_wf]]])
     (simp add: tree_distance_def path_of_str_def parse_component_def)

section \<open>The nearest candidates\<close>

lemma dist_loop_total: "list_all (\<lambda>a. prefix a p) as \<Longrightarrow> \<exists>d. dist_loop p q as = Some d"
  by (induction as) (auto simp: path_strip_prefix_def path_starts_with_def)

lemma path_ancestors_prefix: "list_all (\<lambda>a. prefix a p) (path_ancestors p)"
proof (induction p rule: path_ancestors.induct)
  case (1 p)
  then show ?case
    by (subst path_ancestors.simps)
       (auto simp: path_parent_def list_all_iff split: if_splits
         intro: prefix_order.trans[OF _ prefixeq_butlast])
qed

definition distance :: "path \<Rightarrow> path \<Rightarrow> nat option" where
  "distance p q = the (get_paths_dist p q)"

lemma get_paths_dist_total: "get_paths_dist p q = Some (distance p q)"
  using dist_loop_total[OF path_ancestors_prefix, of p q] by (auto simp: distance_def get_paths_dist_def)

text \<open>The candidates but the including file, and those of them at the distance \<open>d\<close>.\<close>

definition at_distance :: "path \<Rightarrow> path list \<Rightarrow> nat \<Rightarrow> path list" where
  "at_distance cur ps d = filter (\<lambda>p. cur \<noteq> p \<and> distance cur p = Some d) ps"

definition distances :: "path \<Rightarrow> path list \<Rightarrow> nat set" where
  "distances cur ps = {d. \<exists>p\<in>set ps. cur \<noteq> p \<and> distance cur p = Some d}"

lemma finite_distances: "finite (distances cur ps)"
proof -
  have "distances cur ps \<subseteq> (\<lambda>p. the (distance cur p)) ` set ps"
    by (force simp: distances_def)
  then show ?thesis by (rule finite_subset) simp
qed

lemma distances_Cons:
  "distances cur (p # ps) =
    (if cur \<noteq> p then (case distance cur p of None \<Rightarrow> {} | Some d \<Rightarrow> {d}) else {}) \<union> distances cur ps"
  by (auto simp: distances_def split: option.splits)

lemma at_distance_Cons:
  "at_distance cur (p # ps) d =
    (if cur \<noteq> p \<and> distance cur p = Some d then [p] else []) @ at_distance cur ps d"
  by (simp add: at_distance_def)

text \<open>The loop keeps the candidates at the least distance seen so far.\<close>

lemma min_distance_loop_eq:
  "min_distance_loop cur ps m qs = Some
    (let m' = Min (insert m (distances cur ps))
     in (if m' = m then qs else []) @ at_distance cur ps m')"
proof (induction ps arbitrary: m qs)
  case Nil
  then show ?case by (simp add: distances_def at_distance_def)
next
  case (Cons p ps)
  note fin = finite_distances[of cur ps]
  show ?case
  proof (cases "cur = p \<or> distance cur p = None")
    case True
    then show ?thesis
      using Cons by (auto simp: distances_Cons at_distance_Cons get_paths_dist_total)
  next
    case False
    then obtain d where d: "cur \<noteq> p" "distance cur p = Some d" by auto
    let ?m = "Min (insert (min d m) (distances cur ps))"
    have m: "Min (insert m (distances cur (p # ps))) = ?m"
      using d fin
      by (cases "distances cur ps = {}") (simp_all add: distances_Cons min.commute min.left_commute)
    have le: "?m \<le> min d m" using fin by (intro Min_le) auto
    consider "d < m" | "d = m" | "m < d" by linarith
    then show ?thesis
    proof cases
      case 1
      then show ?thesis
        using d Cons[of d "[p]"] le unfolding m
        by (auto simp: at_distance_Cons get_paths_dist_total min_def Let_def)
    next
      case 2
      then show ?thesis
        using d Cons[of m "qs @ [p]"] le unfolding m
        by (auto simp: at_distance_Cons get_paths_dist_total min_def Let_def)
    next
      case 3
      then show ?thesis
        using d Cons[of m qs] le unfolding m
        by (auto simp: at_distance_Cons get_paths_dist_total min_def Let_def)
    qed
  qed
qed

section \<open>What an include means\<close>

lemma unique_filter_Some:
  "unique_filter ps cur f = Some qs \<longleftrightarrow> (\<exists>q. qs = [q] \<and> filter (\<lambda>p. cur \<noteq> p \<and> f p) ps = [q])"
  by (auto simp: unique_filter_def Let_def length_Suc_conv)

lemma unique_filter_mem: "unique_filter ps cur f = Some qs \<Longrightarrow> \<exists>q. qs = [q] \<and> q \<in> set ps \<and> cur \<noteq> q"
proof -
  assume "unique_filter ps cur f = Some qs"
  then obtain q where "qs = [q]" "filter (\<lambda>p. cur \<noteq> p \<and> f p) ps = [q]"
    by (auto simp: unique_filter_Some)
  from this(2) have "q \<in> set (filter (\<lambda>p. cur \<noteq> p \<and> f p) ps)" by simp
  with \<open>qs = [q]\<close> show ?thesis by auto
qed

lemma or_else_Some: "or_else x y = Some a \<longleftrightarrow> x = Some a \<or> x = None \<and> y = Some a"
  by (auto simp: or_else_def split: option.splits)

definition include_key :: "string \<Rightarrow> string option" where
  "include_key inc = Option.bind (path_file_name (normalize_path (path_of_str (strip_mozilla inc)))) from_utf8"

definition include_target :: "path \<Rightarrow> string \<Rightarrow> path option" where
  "include_target cur inc =
     map_option (\<lambda>parent. normalize_path (path_join parent (path_of_str (strip_mozilla inc)))) (path_parent cur)"

definition by_strategy :: "path \<Rightarrow> string \<Rightarrow> path list \<Rightarrow> path list option" where
  "by_strategy cur inc ps =
     or_else (resolve_against_resolved ps cur (include_target cur inc))
       (or_else (unique_filter ps cur (\<lambda>p. path_ends_with p (normalize_path (path_of_str (strip_mozilla inc)))))
         (resolve_against_parent ps cur))"

lemma guess_file_eq:
  "guess_file cur inc all_files = (case Option.bind (include_key inc) all_files of
     None \<Rightarrow> Some []
   | Some ps \<Rightarrow> if length ps = 1 then Some ps
       else (case by_strategy cur inc ps of Some m \<Rightarrow> Some m | None \<Rightarrow> min_distance_candidates ps cur))"
  unfolding guess_file_def Let_def include_key_def[symmetric] include_target_def[symmetric]
    by_strategy_def[symmetric]
  by (cases "include_key inc") (auto split: option.split)

lemma by_strategy_mem: "by_strategy cur inc ps = Some m \<Longrightarrow> \<exists>q. m = [q] \<and> q \<in> set ps \<and> cur \<noteq> q"
  by (auto simp: by_strategy_def or_else_Some resolve_against_resolved_def resolve_against_parent_def
      bind_eq_Some_conv dest!: unique_filter_mem)

lemma guess_file_among:
  assumes "guess_file cur inc all_files = Some ms" "m \<in> set ms"
  shows "\<exists>ps\<in>ran all_files. m \<in> set ps"
proof -
  obtain ps where ps: "Option.bind (include_key inc) all_files = Some ps"
    using assms by (cases "Option.bind (include_key inc) all_files") (auto simp: guess_file_eq)
  then have "ps \<in> ran all_files" by (auto simp: bind_eq_Some_conv ran_def)
  moreover have "m \<in> set ps"
    using assms ps by_strategy_mem[of cur inc ps]
    by (fastforce simp: guess_file_eq min_distance_candidates_def min_distance_loop_eq Let_def at_distance_def
        split: if_splits option.splits)
  ultimately show ?thesis by blast
qed

text \<open>The candidates no other candidate is nearer than.\<close>

definition nearest :: "path \<Rightarrow> path list \<Rightarrow> path list" where
  "nearest cur ps = filter (\<lambda>p. p \<noteq> cur \<and> tree_distance cur p \<noteq> None \<and>
     (\<forall>q\<in>set ps. q \<noteq> cur \<and> tree_distance cur q \<noteq> None \<longrightarrow>
        the (tree_distance cur p) \<le> the (tree_distance cur q))) ps"

lemma min_distance_candidates_nearest:
  assumes "wf_path cur" "\<forall>p\<in>set ps. \<forall>d. tree_distance cur p = Some d \<longrightarrow> d < usize_MAX"
  shows "min_distance_candidates ps cur = Some (nearest cur ps)"
proof -
  have dist: "distance cur p = tree_distance cur p" for p
    using assms(1) by (simp add: distance_def get_paths_dist_eq)
  let ?D = "distances cur ps" and ?m = "Min (insert usize_MAX (distances cur ps))"
  have "at_distance cur ps ?m = nearest cur ps"
    unfolding at_distance_def nearest_def
  proof (rule filter_cong[OF refl])
    fix p assume p: "p \<in> set ps"
    let ?least = "\<forall>q\<in>set ps. q \<noteq> cur \<and> tree_distance cur q \<noteq> None \<longrightarrow>
          the (tree_distance cur p) \<le> the (tree_distance cur q)"
    show "(cur \<noteq> p \<and> distance cur p = Some ?m) = (p \<noteq> cur \<and> tree_distance cur p \<noteq> None \<and> ?least)"
    proof (cases "cur \<noteq> p \<and> distance cur p \<noteq> None")
      case True
      then obtain d where d: "distance cur p = Some d" "d \<in> ?D" "p \<noteq> cur"
        using p by (auto simp: distances_def)
      have "?m = d \<longleftrightarrow> (\<forall>e\<in>?D. d \<le> e)"
        using d(2) assms(2) finite_distances[of cur ps] dist
        by (subst Min_eq_iff) (auto simp: distances_def intro: less_imp_le)
      also have "\<dots> \<longleftrightarrow> ?least"
        using d(1) dist by (fastforce simp: distances_def)
      finally show ?thesis using d dist by auto
    next
      case False
      then show ?thesis using dist by auto
    qed
  qed
  then show ?thesis by (simp add: min_distance_candidates_def min_distance_loop_eq Let_def)
qed

text \<open>
  \<open>guess_file\<close> never panics. A lone candidate is taken; otherwise every answer is a
  candidate with the base name of the include and never the including file; and when no strategy
  singles one out, the answer is all the candidates at the least distance, in their order.
\<close>

theorem guess_file_candidates:
  assumes "Option.bind (include_key inc) all_files = Some ps"
    and "\<forall>p\<in>set ps. \<forall>d. tree_distance cur p = Some d \<longrightarrow> d < usize_MAX" "list_all wf_path (cur # ps)"
  shows "\<exists>ms. guess_file cur inc all_files = Some ms \<and> set ms \<subseteq> set ps \<and>
    (length ps = 1 \<longrightarrow> ms = ps) \<and> (length ps \<noteq> 1 \<longrightarrow> cur \<notin> set ms) \<and>
    (length ps \<noteq> 1 \<and> by_strategy cur inc ps = None \<longrightarrow>
       ms = nearest cur ps)"
proof -
  have guess: "guess_file cur inc all_files = Some (if length ps = 1 then ps
      else case by_strategy cur inc ps of Some m \<Rightarrow> m | None \<Rightarrow> nearest cur ps)"
    using assms(1,3) min_distance_candidates_nearest[OF _ assms(2)]
    by (simp add: guess_file_eq split: option.split)
  show ?thesis
  proof (cases "by_strategy cur inc ps")
    case None
    then show ?thesis unfolding guess
      by (intro exI[of _ "if length ps = 1 then ps else nearest cur ps"]) (auto simp: nearest_def)
  next
    case (Some m)
    then show ?thesis
      using by_strategy_mem[OF Some] unfolding guess
      by (intro exI[of _ "if length ps = 1 then ps else m"]) auto
  qed
qed

theorem guess_file_candidates_witness:
  "\<exists>ms. guess_file (map Normal [''a'', ''x.c'']) ''f.h''
      [''f.h'' \<mapsto> [map Normal [''a'', ''b'', ''f.h''], map Normal [''a'', ''c'', ''f.h'']]] = Some ms \<and>
    ms = [map Normal [''a'', ''b'', ''f.h''], map Normal [''a'', ''c'', ''f.h'']]"
proof -
  let ?cur = "map Normal [''a'', ''x.c'']"
  let ?ps = "[map Normal [''a'', ''b'', ''f.h''], map Normal [''a'', ''c'', ''f.h'']]"
  have "Option.bind (include_key ''f.h'') [''f.h'' \<mapsto> ?ps] = Some ?ps" by code_simp
  moreover have "\<forall>p\<in>set ?ps. \<forall>d. tree_distance ?cur p = Some d \<longrightarrow> d < usize_MAX"
    by (simp add: tree_distance_def usize_MAX_def)
  moreover have "list_all wf_path (?cur # ?ps)" by (simp add: wf_path_def)
  moreover have "by_strategy ?cur ''f.h'' ?ps = None" by code_simp
  moreover have "nearest ?cur ?ps = ?ps" by (simp add: nearest_def tree_distance_def)
  ultimately show ?thesis using guess_file_candidates[of "''f.h''" "[''f.h'' \<mapsto> ?ps]" ?ps ?cur] by simp
qed

text \<open>
  Property C27. The include is taken relative to the directory of the including file: when that path,
  normalised, is one of the candidates, the answer is that candidate, whatever the others are.
\<close>

theorem guess_file_finds_target:
  assumes "Option.bind (include_key inc) all_files = Some ps"
    and "include_target cur inc = Some target" "target \<in> set ps" "target \<noteq> cur" "distinct ps"
  shows "guess_file cur inc all_files = Some [target]"
proof (cases "length ps = 1")
  case True
  then show ?thesis using assms(1,3) by (auto simp: guess_file_eq length_Suc_conv)
next
  case False
  have "filter (\<lambda>p. cur \<noteq> p \<and> p = target) ps = [target]"
    using assms(3-5) by (induction ps) (auto simp: filter_empty_conv)
  then have "by_strategy cur inc ps = Some [target]"
    by (simp add: by_strategy_def or_else_def resolve_against_resolved_def assms(2) unique_filter_def)
  then show ?thesis using False assms(1) by (simp add: guess_file_eq)
qed

theorem guess_file_finds_target_witness:
  "guess_file (map Normal [''src'', ''lib'', ''file.c'']) ''../foo.h''
     [''foo.h'' \<mapsto> [map Normal [''foo.h''], map Normal [''src'', ''foo.h'']]] =
   Some [map Normal [''src'', ''foo.h'']]"
proof (rule guess_file_finds_target)
  show "Option.bind (include_key ''../foo.h'')
      [''foo.h'' \<mapsto> [map Normal [''foo.h''], map Normal [''src'', ''foo.h'']]] =
    Some [map Normal [''foo.h''], map Normal [''src'', ''foo.h'']]" by code_simp
  show "include_target (map Normal [''src'', ''lib'', ''file.c'']) ''../foo.h'' =
    Some (map Normal [''src'', ''foo.h''])" by code_simp
qed simp_all

end
