(* ===== verification/Petgraph.thy ===== *)
theory Petgraph
  imports Rust_Path
begin

text \<open>
  The interface to \<^verbatim>\<open>petgraph\<close>, the library of graphs \<^verbatim>\<open>preproc.rs\<close> uses. It is not in the
  repository, so its operations are a parameter: a record of functions. The locale has what
  its documentation promises of them, and a graph of two lists is an instance.
\<close>

datatype direction = Outgoing | Incoming

record 'g petgraph_ops =
  graph_ok :: "'g \<Rightarrow> bool"  \<comment> \<open>the values the operations yield\<close>
  graph_new :: "'g"
  add_node :: "'g \<Rightarrow> path \<Rightarrow> 'g \<times> nat"
  add_edge :: "'g \<Rightarrow> nat \<Rightarrow> nat \<Rightarrow> 'g option"  \<comment> \<open>panics when a node is missing\<close>
  remove_node :: "'g \<Rightarrow> nat \<Rightarrow> 'g \<times> path option"
  node_weight :: "'g \<Rightarrow> nat \<Rightarrow> path option"
  neighbors_directed :: "'g \<Rightarrow> nat \<Rightarrow> direction \<Rightarrow> nat list"
  node_indices :: "'g \<Rightarrow> nat list"
  node_bound :: "'g \<Rightarrow> nat"
  kosaraju_scc :: "'g \<Rightarrow> nat list list"
  toposort :: "'g \<Rightarrow> nat list option"
  dfs_order :: "'g \<Rightarrow> nat \<Rightarrow> nat list"  \<comment> \<open>what a \<^verbatim>\<open>Dfs\<close> visits\<close>

definition graph_nodes :: "('g, 'm) petgraph_ops_scheme \<Rightarrow> 'g \<Rightarrow> nat set" where
  "graph_nodes G g = {n. node_weight G g n \<noteq> None}"

definition graph_edges :: "('g, 'm) petgraph_ops_scheme \<Rightarrow> 'g \<Rightarrow> (nat \<times> nat) set" where
  "graph_edges G g = {(a, b). a \<in> graph_nodes G g \<and> b \<in> set (neighbors_directed G g a Outgoing)}"

locale petgraph =
  fixes G :: "'g petgraph_ops"
  assumes new_ok: "graph_ok G (graph_new G)"
    and new_weight: "node_weight G (graph_new G) n = None"
    and add_node_ok: "\<lbrakk> graph_ok G g; add_node G g p = (g', n) \<rbrakk> \<Longrightarrow> graph_ok G g'"
    and add_node_fresh: "\<lbrakk> graph_ok G g; add_node G g p = (g', n) \<rbrakk> \<Longrightarrow> node_weight G g n = None"
    and add_node_weight: "\<lbrakk> graph_ok G g; add_node G g p = (g', n) \<rbrakk> \<Longrightarrow>
      node_weight G g' = (node_weight G g)(n \<mapsto> p)"
    and add_node_edges: "\<lbrakk> graph_ok G g; add_node G g p = (g', n) \<rbrakk> \<Longrightarrow> graph_edges G g' = graph_edges G g"
    and add_edge_ok: "\<lbrakk> graph_ok G g; a \<in> graph_nodes G g; b \<in> graph_nodes G g \<rbrakk> \<Longrightarrow>
      \<exists>g'. add_edge G g a b = Some g' \<and> graph_ok G g' \<and> node_weight G g' = node_weight G g \<and>
        graph_edges G g' = insert (a, b) (graph_edges G g)"
    and remove_node_ok: "\<lbrakk> graph_ok G g; remove_node G g n = (g', w) \<rbrakk> \<Longrightarrow>
      graph_ok G g' \<and> w = node_weight G g n \<and> node_weight G g' = (node_weight G g)(n := None) \<and>
      graph_edges G g' = {(a, b) \<in> graph_edges G g. a \<noteq> n \<and> b \<noteq> n}"
    and neighbors_out: "\<lbrakk> graph_ok G g; a \<in> graph_nodes G g \<rbrakk> \<Longrightarrow>
      set (neighbors_directed G g a Outgoing) = {b. (a, b) \<in> graph_edges G g}"
    and neighbors_in: "\<lbrakk> graph_ok G g; a \<in> graph_nodes G g \<rbrakk> \<Longrightarrow>
      set (neighbors_directed G g a Incoming) = {b. (b, a) \<in> graph_edges G g}"
    and edges_nodes: "\<lbrakk> graph_ok G g; (a, b) \<in> graph_edges G g \<rbrakk> \<Longrightarrow> a \<in> graph_nodes G g \<and> b \<in> graph_nodes G g"
    and indices: "graph_ok G g \<Longrightarrow> set (node_indices G g) = graph_nodes G g \<and> distinct (node_indices G g)"
    and bound: "\<lbrakk> graph_ok G g; n \<in> graph_nodes G g \<rbrakk> \<Longrightarrow> n < node_bound G g"
    and scc_partition: "graph_ok G g \<Longrightarrow>
      distinct (concat (kosaraju_scc G g)) \<and> set (concat (kosaraju_scc G g)) = graph_nodes G g"
    and scc_classes: "\<lbrakk> graph_ok G g; c \<in> set (kosaraju_scc G g); u \<in> set c \<rbrakk> \<Longrightarrow>
      set c = {v. (u, v) \<in> (graph_edges G g)\<^sup>* \<and> (v, u) \<in> (graph_edges G g)\<^sup>*}"
    and toposort_order: "\<lbrakk> graph_ok G g; acyclic (graph_edges G g) \<rbrakk> \<Longrightarrow>
      \<exists>order. toposort G g = Some order \<and> distinct order \<and> set order = graph_nodes G g \<and>
        sorted_wrt (\<lambda>a b. (b, a) \<notin> graph_edges G g) order"
    and toposort_cycle: "\<lbrakk> graph_ok G g; \<not> acyclic (graph_edges G g) \<rbrakk> \<Longrightarrow> toposort G g = None"
    and dfs_reach: "\<lbrakk> graph_ok G g; n \<in> graph_nodes G g \<rbrakk> \<Longrightarrow>
      set (dfs_order G g n) = {v. (n, v) \<in> (graph_edges G g)\<^sup>*}"
begin

lemma finite_nodes: "graph_ok G g \<Longrightarrow> finite (graph_nodes G g)"
  using indices by (metis List.finite_set)

lemma new_nodes: "graph_nodes G (graph_new G) = {}"
  by (simp add: graph_nodes_def new_weight)

lemma new_edges: "graph_edges G (graph_new G) = {}"
  by (simp add: graph_edges_def new_nodes)

lemma add_node_nodes:
  "\<lbrakk> graph_ok G g; add_node G g p = (g', n) \<rbrakk> \<Longrightarrow> graph_nodes G g' = insert n (graph_nodes G g) \<and>
    n \<notin> graph_nodes G g"
  using add_node_weight[of g p g' n] add_node_fresh[of g p g' n] by (auto simp: graph_nodes_def)

lemma remove_node_nodes:
  "\<lbrakk> graph_ok G g; remove_node G g n = (g', w) \<rbrakk> \<Longrightarrow> graph_nodes G g' = graph_nodes G g - {n}"
  using remove_node_ok[of g n g' w] by (auto simp: graph_nodes_def)

text \<open>In the order of a topological sort every edge leads to a later node.\<close>

lemma toposort_edge:
  assumes "graph_ok G g" "toposort G g = Some order" "order = xs @ n # ys" "(n, m) \<in> graph_edges G g"
  shows "m \<in> set ys"
proof -
  have ac: "acyclic (graph_edges G g)" using toposort_cycle assms(1,2) by (metis option.distinct(1))
  then have o: "set order = graph_nodes G g" "sorted_wrt (\<lambda>a b. (b, a) \<notin> graph_edges G g) order"
    using toposort_order[OF assms(1)] assms(2) by auto
  have "m \<noteq> n" using ac assms(4) by (auto simp: acyclic_def)
  moreover have "m \<in> set order" using edges_nodes[OF assms(1,4)] o(1) by simp
  moreover have "m \<notin> set xs" using o(2) assms(3,4) by (auto simp: sorted_wrt_append)
  ultimately show ?thesis using assms(3) by auto
qed

end

section \<open>An instance\<close>

text \<open>A list of the nodes with their weights, and a list of the edges.\<close>

type_synonym list_graph = "(nat \<times> path) list \<times> (nat \<times> nat) list"

definition lg_reach :: "list_graph \<Rightarrow> nat \<Rightarrow> nat \<Rightarrow> bool" where
  "lg_reach g a b \<longleftrightarrow> a = b \<or> (a, b) \<in> (set (snd g))\<^sup>+"

definition lg_nodes :: "list_graph \<Rightarrow> nat list" where
  "lg_nodes g = map fst (fst g)"

definition lg_ok :: "list_graph \<Rightarrow> bool" where
  "lg_ok g \<longleftrightarrow> distinct (lg_nodes g) \<and>
     list_all (\<lambda>(a, b). a \<in> set (lg_nodes g) \<and> b \<in> set (lg_nodes g)) (snd g)"

definition lg_bound :: "list_graph \<Rightarrow> nat" where
  "lg_bound g = (if lg_nodes g = [] then 0 else Suc (Max (set (lg_nodes g))))"

definition lg_add_node :: "list_graph \<Rightarrow> path \<Rightarrow> list_graph \<times> nat" where
  "lg_add_node g p = ((fst g @ [(lg_bound g, p)], snd g), lg_bound g)"

definition lg_add_edge :: "list_graph \<Rightarrow> nat \<Rightarrow> nat \<Rightarrow> list_graph option" where
  "lg_add_edge g a b =
     (if a \<in> set (lg_nodes g) \<and> b \<in> set (lg_nodes g) then Some (fst g, (a, b) # snd g) else None)"

definition lg_remove_node :: "list_graph \<Rightarrow> nat \<Rightarrow> list_graph \<times> path option" where
  "lg_remove_node g n =
     ((filter (\<lambda>(m, p). m \<noteq> n) (fst g), filter (\<lambda>(a, b). a \<noteq> n \<and> b \<noteq> n) (snd g)), map_of (fst g) n)"

definition lg_neighbors :: "list_graph \<Rightarrow> nat \<Rightarrow> direction \<Rightarrow> nat list" where
  "lg_neighbors g n dir = (case dir of
      Outgoing \<Rightarrow> map snd (filter (\<lambda>(a, b). a = n) (snd g))
    | Incoming \<Rightarrow> map fst (filter (\<lambda>(a, b). b = n) (snd g)))"

definition lg_class :: "list_graph \<Rightarrow> nat \<Rightarrow> nat list" where
  "lg_class g n = filter (\<lambda>m. lg_reach g n m \<and> lg_reach g m n) (lg_nodes g)"

definition lg_scc :: "list_graph \<Rightarrow> nat list list" where
  "lg_scc g = remdups (map (lg_class g) (lg_nodes g))"

text \<open>In a graph without a cycle a node reaches more nodes than its successors do.\<close>

definition lg_toposort :: "list_graph \<Rightarrow> nat list option" where
  "lg_toposort g =
     (if list_all (\<lambda>(a, b). \<not> lg_reach g b a) (snd g)
      then Some (rev (sort_key (\<lambda>n. length (filter (lg_reach g n) (lg_nodes g))) (lg_nodes g)))
      else None)"

definition list_petgraph :: "list_graph petgraph_ops" where
  "list_petgraph = \<lparr>
     graph_ok = lg_ok, graph_new = ([], []), add_node = lg_add_node, add_edge = lg_add_edge,
     remove_node = lg_remove_node, node_weight = (\<lambda>g. map_of (fst g)),
     neighbors_directed = lg_neighbors, node_indices = lg_nodes, node_bound = lg_bound,
     kosaraju_scc = lg_scc, toposort = lg_toposort,
     dfs_order = (\<lambda>g n. filter (lg_reach g n) (lg_nodes g)) \<rparr>"

lemma list_petgraph_simps [simp]:
  "graph_ok list_petgraph = lg_ok" "graph_new list_petgraph = ([], [])"
  "add_node list_petgraph = lg_add_node" "add_edge list_petgraph = lg_add_edge"
  "remove_node list_petgraph = lg_remove_node" "node_weight list_petgraph g = map_of (fst g)"
  "neighbors_directed list_petgraph = lg_neighbors" "node_indices list_petgraph = lg_nodes"
  "node_bound list_petgraph = lg_bound" "kosaraju_scc list_petgraph = lg_scc"
  "toposort list_petgraph = lg_toposort"
  "dfs_order list_petgraph g n = filter (lg_reach g n) (lg_nodes g)"
  by (simp_all add: list_petgraph_def)

lemma lg_graph_nodes: "graph_nodes list_petgraph g = set (lg_nodes g)"
  by (auto simp: graph_nodes_def lg_nodes_def map_of_eq_None_iff)

lemma lg_graph_edges: "lg_ok g \<Longrightarrow> graph_edges list_petgraph g = set (snd g)"
  unfolding graph_edges_def lg_graph_nodes
  by (force simp: lg_neighbors_def lg_ok_def list_all_iff)

lemma lg_reach_iff: "lg_reach g a b \<longleftrightarrow> (a, b) \<in> (set (snd g))\<^sup>*"
  by (auto simp: lg_reach_def rtrancl_eq_or_trancl)

lemma lg_reach_node: "\<lbrakk> lg_ok g; (a, b) \<in> (set (snd g))\<^sup>*; a \<in> set (lg_nodes g) \<rbrakk> \<Longrightarrow> b \<in> set (lg_nodes g)"
  by (rotate_tac 1, induction rule: rtrancl_induct) (auto simp: lg_ok_def list_all_iff)

lemma lg_reach_node_back: "\<lbrakk> lg_ok g; (a, b) \<in> (set (snd g))\<^sup>*; b \<in> set (lg_nodes g) \<rbrakk> \<Longrightarrow> a \<in> set (lg_nodes g)"
  by (rotate_tac 1, induction rule: converse_rtrancl_induct) (auto simp: lg_ok_def list_all_iff)

lemma lg_bound_gt: "n \<in> set (lg_nodes g) \<Longrightarrow> n < lg_bound g"
  by (auto simp: lg_bound_def less_Suc_eq_le)

lemma lg_class_set:
  "lg_ok g \<Longrightarrow> n \<in> set (lg_nodes g) \<Longrightarrow>
    set (lg_class g n) = {m. (n, m) \<in> (set (snd g))\<^sup>* \<and> (m, n) \<in> (set (snd g))\<^sup>*}"
  using lg_reach_node[of g n] by (auto simp: lg_class_def lg_reach_iff)

lemma lg_class_cong:
  "(n, m) \<in> (set (snd g))\<^sup>* \<Longrightarrow> (m, n) \<in> (set (snd g))\<^sup>* \<Longrightarrow> lg_class g n = lg_class g m"
  unfolding lg_class_def lg_reach_iff
  by (rule filter_cong[OF refl]) (blast intro: rtrancl_trans)

lemma lg_scc_classes:
  assumes "lg_ok g" "c \<in> set (lg_scc g)" "u \<in> set c"
  shows "set c = {v. (u, v) \<in> (set (snd g))\<^sup>* \<and> (v, u) \<in> (set (snd g))\<^sup>*}"
proof -
  obtain n where n: "n \<in> set (lg_nodes g)" "c = lg_class g n" using assms(2) by (auto simp: lg_scc_def)
  have u: "(n, u) \<in> (set (snd g))\<^sup>*" "(u, n) \<in> (set (snd g))\<^sup>*"
    using assms(3) n(2) by (auto simp: lg_class_def lg_reach_iff)
  show ?thesis
    unfolding n(2) lg_class_set[OF assms(1) n(1)] using u by (blast intro: rtrancl_trans)
qed

lemma lg_scc_partition:
  assumes "lg_ok g"
  shows "distinct (concat (lg_scc g)) \<and> set (concat (lg_scc g)) = set (lg_nodes g)"
proof
  show "distinct (concat (lg_scc g))"
  proof (rule distinct_concat)
    fix c d assume c: "c \<in> set (lg_scc g)" and d: "d \<in> set (lg_scc g)" and ne: "c \<noteq> d"
    obtain n where n: "c = lg_class g n" using c by (auto simp: lg_scc_def)
    obtain m where m: "d = lg_class g m" using d by (auto simp: lg_scc_def)
    show "set c \<inter> set d = {}"
    proof (rule ccontr)
      assume "set c \<inter> set d \<noteq> {}"
      then obtain u where "u \<in> set (lg_class g n)" "u \<in> set (lg_class g m)" by (auto simp: n m)
      then have "lg_class g n = lg_class g m"
        by (intro lg_class_cong) (auto simp: lg_class_def lg_reach_iff intro: rtrancl_trans)
      then show False using ne n m by simp
    qed
  qed (use assms in \<open>auto simp: lg_scc_def lg_class_def lg_ok_def\<close>)
  show "set (concat (lg_scc g)) = set (lg_nodes g)"
    by (auto simp: lg_scc_def lg_class_def lg_reach_iff)
qed

definition lg_rank :: "list_graph \<Rightarrow> nat \<Rightarrow> nat" where
  "lg_rank g n = length (filter (lg_reach g n) (lg_nodes g))"

lemma lg_rank_less:
  assumes ok: "lg_ok g" and ac: "acyclic (set (snd g))" and e: "(a, b) \<in> set (snd g)"
  shows "lg_rank g b < lg_rank g a"
proof -
  have card: "lg_rank g n = card {m \<in> set (lg_nodes g). lg_reach g n m}" for n
    using ok by (simp add: lg_rank_def lg_ok_def distinct_length_filter Int_def conj_commute)
  have "(b, a) \<notin> (set (snd g))\<^sup>*"
    using ac e by (meson acyclic_def rtrancl_into_trancl2)
  moreover have "a \<in> set (lg_nodes g)" using ok e by (auto simp: lg_ok_def list_all_iff)
  moreover have "lg_reach g b m \<Longrightarrow> lg_reach g a m" for m
    using e by (auto simp: lg_reach_iff intro: converse_rtrancl_into_rtrancl)
  ultimately have "{m \<in> set (lg_nodes g). lg_reach g b m} \<subset> {m \<in> set (lg_nodes g). lg_reach g a m}"
    by (auto simp: lg_reach_iff)
  then show ?thesis unfolding card by (intro psubset_card_mono) auto
qed

lemma lg_acyclic: "acyclic (set (snd g)) \<longleftrightarrow> list_all (\<lambda>(a, b). \<not> lg_reach g b a) (snd g)"
proof
  assume "acyclic (set (snd g))"
  then show "list_all (\<lambda>(a, b). \<not> lg_reach g b a) (snd g)"
    by (auto simp: list_all_iff lg_reach_iff acyclic_def dest: rtrancl_into_trancl2)
next
  assume l: "list_all (\<lambda>(a, b). \<not> lg_reach g b a) (snd g)"
  have False if c: "(a, a) \<in> (set (snd g))\<^sup>+" for a
  proof -
    obtain b where "(a, b) \<in> set (snd g)" "(b, a) \<in> (set (snd g))\<^sup>*" using c by (meson tranclD)
    then show False using l by (auto simp: list_all_iff lg_reach_iff)
  qed
  then show "acyclic (set (snd g))" by (auto simp: acyclic_def)
qed

lemma lg_toposort_order:
  assumes ok: "lg_ok g" and ac: "acyclic (set (snd g))"
  shows "\<exists>order. lg_toposort g = Some order \<and> distinct order \<and> set order = set (lg_nodes g) \<and>
    sorted_wrt (\<lambda>a b. (b, a) \<notin> set (snd g)) order"
proof -
  let ?order = "rev (sort_key (lg_rank g) (lg_nodes g))"
  have "sorted_wrt (\<lambda>a b. lg_rank g b \<le> lg_rank g a) ?order"
    using sorted_sort_key[of "lg_rank g" "lg_nodes g"] by (simp add: sorted_wrt_rev sorted_map)
  then have "sorted_wrt (\<lambda>a b. (b, a) \<notin> set (snd g)) ?order"
    by (rule sorted_wrt_mono_rel[rotated]) (use lg_rank_less[OF ok ac] in fastforce)
  moreover have "lg_toposort g = Some ?order"
    using ac by (simp add: lg_toposort_def lg_acyclic lg_rank_def[abs_def])
  ultimately show ?thesis using ok by (auto simp: lg_ok_def)
qed

interpretation lg: petgraph list_petgraph
proof
  fix g :: list_graph and g' p n a b w c u
  note simps = lg_graph_nodes lg_graph_edges
  show "graph_ok list_petgraph (graph_new list_petgraph)"
    by (simp add: lg_ok_def lg_nodes_def)
  show "node_weight list_petgraph (graph_new list_petgraph) n = None"
    by simp
  {
    assume g: "graph_ok list_petgraph g" and add: "add_node list_petgraph g p = (g', n)"
    have n: "n = lg_bound g" "n \<notin> set (lg_nodes g)" and g': "g' = (fst g @ [(n, p)], snd g)"
      using add lg_bound_gt[of "lg_bound g" g] by (auto simp: lg_add_node_def)
    show ok': "graph_ok list_petgraph g'"
      using g n(2) by (auto simp: lg_ok_def lg_nodes_def g' list_all_iff)
    show "node_weight list_petgraph g n = None"
      using n(2) by (simp add: lg_nodes_def map_of_eq_None_iff)
    then show "node_weight list_petgraph g' = (node_weight list_petgraph g)(n \<mapsto> p)"
      by (auto simp: g' map_add_def split: option.splits)
    show "graph_edges list_petgraph g' = graph_edges list_petgraph g"
      using g ok' by (simp add: simps g')
  }
  {
    assume g: "graph_ok list_petgraph g" and "a \<in> graph_nodes list_petgraph g" "b \<in> graph_nodes list_petgraph g"
    then have "add_edge list_petgraph g a b = Some (fst g, (a, b) # snd g)"
      "lg_ok (fst g, (a, b) # snd g)"
      by (auto simp: simps lg_ok_def lg_nodes_def lg_add_edge_def)
    then show "\<exists>g'. add_edge list_petgraph g a b = Some g' \<and> graph_ok list_petgraph g' \<and>
        node_weight list_petgraph g' = node_weight list_petgraph g \<and>
        graph_edges list_petgraph g' = insert (a, b) (graph_edges list_petgraph g)"
      using g by (simp add: simps)
  }
  {
    assume g: "graph_ok list_petgraph g" and rem: "remove_node list_petgraph g n = (g', w)"
    have g': "g' = (filter (\<lambda>(m, p). m \<noteq> n) (fst g), filter (\<lambda>(a, b). a \<noteq> n \<and> b \<noteq> n) (snd g))"
      and w: "w = map_of (fst g) n"
      using rem by (auto simp: lg_remove_node_def)
    have nodes: "lg_nodes g' = filter (\<lambda>m. m \<noteq> n) (lg_nodes g)"
      by (simp add: lg_nodes_def g' filter_map comp_def case_prod_unfold)
    then have ok': "lg_ok g'" using g by (auto simp: lg_ok_def g' list_all_iff)
    have "map_of (filter (\<lambda>(m, p). m \<noteq> n) xs) = (map_of xs)(n := None)" for xs :: "(nat \<times> path) list"
      by (induction xs) auto
    then have "map_of (fst g') = (map_of (fst g))(n := None)" by (simp add: g')
    then show "graph_ok list_petgraph g' \<and> w = node_weight list_petgraph g n \<and>
        node_weight list_petgraph g' = (node_weight list_petgraph g)(n := None) \<and>
        graph_edges list_petgraph g' = {(a, b) \<in> graph_edges list_petgraph g. a \<noteq> n \<and> b \<noteq> n}"
      using ok' g w by (auto simp: simps g')
  }
  {
    assume g: "graph_ok list_petgraph g"
    show "set (neighbors_directed list_petgraph g a Outgoing) = {b. (a, b) \<in> graph_edges list_petgraph g}"
      using g by (force simp: simps lg_neighbors_def)
    show "set (neighbors_directed list_petgraph g a Incoming) = {b. (b, a) \<in> graph_edges list_petgraph g}"
      using g by (force simp: simps lg_neighbors_def)
    show "(a, b) \<in> graph_edges list_petgraph g \<Longrightarrow>
        a \<in> graph_nodes list_petgraph g \<and> b \<in> graph_nodes list_petgraph g"
      using g by (auto simp: simps lg_ok_def list_all_iff)
    show "set (node_indices list_petgraph g) = graph_nodes list_petgraph g \<and> distinct (node_indices list_petgraph g)"
      using g by (simp add: simps lg_ok_def)
    show "n \<in> graph_nodes list_petgraph g \<Longrightarrow> n < node_bound list_petgraph g"
      using lg_bound_gt by (simp add: simps)
    show "distinct (concat (kosaraju_scc list_petgraph g)) \<and>
        set (concat (kosaraju_scc list_petgraph g)) = graph_nodes list_petgraph g"
      using g lg_scc_partition[of g] by (simp add: simps)
    show "\<lbrakk> c \<in> set (kosaraju_scc list_petgraph g); u \<in> set c \<rbrakk> \<Longrightarrow>
        set c = {v. (u, v) \<in> (graph_edges list_petgraph g)\<^sup>* \<and> (v, u) \<in> (graph_edges list_petgraph g)\<^sup>*}"
      using g lg_scc_classes[of g c u] by (simp add: simps)
    show "acyclic (graph_edges list_petgraph g) \<Longrightarrow>
        \<exists>order. toposort list_petgraph g = Some order \<and> distinct order \<and>
          set order = graph_nodes list_petgraph g \<and>
          sorted_wrt (\<lambda>a b. (b, a) \<notin> graph_edges list_petgraph g) order"
      using g lg_toposort_order[of g] by (simp add: simps)
    show "\<not> acyclic (graph_edges list_petgraph g) \<Longrightarrow> toposort list_petgraph g = None"
      using g by (simp add: simps lg_acyclic) (simp add: lg_toposort_def)
    show "n \<in> graph_nodes list_petgraph g \<Longrightarrow>
        set (dfs_order list_petgraph g n) = {v. (n, v) \<in> (graph_edges list_petgraph g)\<^sup>*}"
      using g lg_reach_node[of g n] by (auto simp: simps lg_reach_iff)
  }
qed

end
