(* ===== verification/Include_Graph.thy ===== *)
theory Include_Graph
  imports Guess_File Petgraph
begin

text \<open>
  \<^verbatim>\<open>big-code-analysis-ast/src/preproc.rs\<close>: the include graph of the files of a project, its
  transitive closure, and the macros visible to a file. A \<^verbatim>\<open>HashMap\<close> is a map and a
  \<^verbatim>\<open>HashSet\<close> a set; the order in which they are iterated is not specified, so it is a
  parameter. \<^term>\<open>None\<close> is a panic.
\<close>

section \<open>Iteration of hashed containers\<close>

text \<open>The orders of the four loops over a hashed container.\<close>

record hash_order =
  order_files :: "path set \<Rightarrow> path list"
  order_includes :: "path \<Rightarrow> string set \<Rightarrow> string list"
  order_members :: "nat \<Rightarrow> string set \<Rightarrow> string list"
  order_nodes :: "path set \<Rightarrow> path list"

locale hash_iteration =
  fixes H :: hash_order
  assumes order_files: "finite ps \<Longrightarrow> set (order_files H ps) = ps \<and> distinct (order_files H ps)"
    and order_includes: "finite ns \<Longrightarrow> set (order_includes H p ns) = ns \<and> distinct (order_includes H p ns)"
    and order_members: "finite ns \<Longrightarrow> set (order_members H n ns) = ns \<and> distinct (order_members H n ns)"
    and order_nodes: "finite ps \<Longrightarrow> set (order_nodes H ps) = ps \<and> distinct (order_nodes H ps)"

definition sorted_order :: hash_order where
  "sorted_order = \<lparr> order_files = sorted_list_of_set, order_includes = (\<lambda>_. sorted_list_of_set),
     order_members = (\<lambda>_. sorted_list_of_set), order_nodes = sorted_list_of_set \<rparr>"

interpretation sorted_order: hash_iteration sorted_order
  by standard (simp_all add: sorted_order_def)

section \<open>The data\<close>

datatype PreprocDiagnostic =
    SelfInclusion path
  | IncludeCycle "string list"
  | NonUtf8CyclePath string
  | NonUtf8IndirectInclude string
  | NotPreprocessed path

record PreprocFile =
  direct_includes :: "string set"
  indirect_includes :: "string set"
  macros :: "string set"

type_synonym preproc_files = "path \<Rightarrow> PreprocFile option"
type_synonym file_table = "string \<Rightarrow> path list option"
type_synonym node_map = "path \<Rightarrow> nat option"

text \<open>The derived order of the diagnostics: by the variant, then by the field.\<close>

fun diagnostic_rank :: "PreprocDiagnostic \<Rightarrow> nat" where
  "diagnostic_rank (SelfInclusion _) = 0"
| "diagnostic_rank (IncludeCycle _) = 1"
| "diagnostic_rank (NonUtf8CyclePath _) = 2"
| "diagnostic_rank (NonUtf8IndirectInclude _) = 3"
| "diagnostic_rank (NotPreprocessed _) = 4"

fun diagnostic_path :: "PreprocDiagnostic \<Rightarrow> path" where
  "diagnostic_path (SelfInclusion p) = p"
| "diagnostic_path (NotPreprocessed p) = p"
| "diagnostic_path _ = []"

fun diagnostic_names :: "PreprocDiagnostic \<Rightarrow> string list" where
  "diagnostic_names (IncludeCycle ms) = ms"
| "diagnostic_names (NonUtf8CyclePath s) = [s]"
| "diagnostic_names (NonUtf8IndirectInclude s) = [s]"
| "diagnostic_names _ = []"

lemma diagnostic_eqI:
  "\<lbrakk> diagnostic_rank a = diagnostic_rank b; diagnostic_path a = diagnostic_path b;
     diagnostic_names a = diagnostic_names b \<rbrakk> \<Longrightarrow> a = b"
  by (cases a; cases b) auto

instantiation PreprocDiagnostic :: linorder
begin

definition less_PreprocDiagnostic :: "PreprocDiagnostic \<Rightarrow> PreprocDiagnostic \<Rightarrow> bool" where
  "less_PreprocDiagnostic a b \<longleftrightarrow> diagnostic_rank a < diagnostic_rank b \<or>
     diagnostic_rank a = diagnostic_rank b \<and> (diagnostic_path a < diagnostic_path b \<or>
       diagnostic_path a = diagnostic_path b \<and> diagnostic_names a < diagnostic_names b)"

definition less_eq_PreprocDiagnostic :: "PreprocDiagnostic \<Rightarrow> PreprocDiagnostic \<Rightarrow> bool" where
  "less_eq_PreprocDiagnostic a b \<longleftrightarrow> diagnostic_rank a < diagnostic_rank b \<or>
     diagnostic_rank a = diagnostic_rank b \<and> (diagnostic_path a < diagnostic_path b \<or>
       diagnostic_path a = diagnostic_path b \<and> diagnostic_names a \<le> diagnostic_names b)"

instance
  by standard (auto simp: less_PreprocDiagnostic_def less_eq_PreprocDiagnostic_def intro: diagnostic_eqI)

end

section \<open>The graph\<close>

definition ensure_node :: "'g petgraph_ops \<Rightarrow> 'g \<Rightarrow> node_map \<Rightarrow> path \<Rightarrow> 'g \<times> node_map \<times> nat" where
  "ensure_node G g nodes file =
     (case nodes file of
        Some n \<Rightarrow> (g, nodes, n)
      | None \<Rightarrow> (let (g, n) = add_node G g file in (g, nodes(file \<mapsto> n), n)))"

definition resolve_single_include :: "path \<Rightarrow> string \<Rightarrow> file_table \<Rightarrow> path option option" where
  "resolve_single_include file incl all_files = do {
     ps \<leftarrow> guess_file file incl all_files;
     Some (case ps of [] \<Rightarrow> None | p # ps \<Rightarrow> Some (fold min ps p))
   }"

text \<open>The body of the inner loop of \<open>build_include_graph\<close>, over the includes of a file, and of the outer one.\<close>

definition build_include ::
  "'g petgraph_ops \<Rightarrow> file_table \<Rightarrow> path \<Rightarrow> nat \<Rightarrow> string \<Rightarrow>
    'g \<times> node_map \<times> PreprocDiagnostic list \<Rightarrow> ('g \<times> node_map \<times> PreprocDiagnostic list) option" where
  "build_include G all_files file node i = (\<lambda>(g, nodes, diagnostics). do {
     r \<leftarrow> resolve_single_include file i all_files;
     case r of
       None \<Rightarrow> Some (g, nodes, diagnostics)
     | Some included \<Rightarrow>
         if included = file then Some (g, nodes, diagnostics @ [SelfInclusion file])
         else (let (g, nodes, n) = ensure_node G g nodes included in do {
           g \<leftarrow> add_edge G g node n;
           Some (g, nodes, diagnostics)
         })
   })"

definition build_file ::
  "'g petgraph_ops \<Rightarrow> hash_order \<Rightarrow> preproc_files \<Rightarrow> file_table \<Rightarrow> path \<Rightarrow>
    'g \<times> node_map \<times> PreprocDiagnostic list \<Rightarrow> ('g \<times> node_map \<times> PreprocDiagnostic list) option" where
  "build_file G H files all_files file = (\<lambda>(g, nodes, diagnostics). do {
     pf \<leftarrow> files file;
     let (g, nodes, node) = ensure_node G g nodes file;
     for_each (build_include G all_files file node) (order_includes H file (direct_includes pf))
       (g, nodes, diagnostics)
   })"

definition build_include_graph ::
  "'g petgraph_ops \<Rightarrow> hash_order \<Rightarrow> preproc_files \<Rightarrow> file_table \<Rightarrow> PreprocDiagnostic list \<Rightarrow>
    ('g \<times> node_map \<times> PreprocDiagnostic list) option" where
  "build_include_graph G H files all_files diagnostics =
     for_each (build_file G H files all_files) (order_files H (dom files))
       (graph_new G, Map.empty, diagnostics)"

section \<open>Include cycles\<close>

definition scc_external_neighbors :: "'g petgraph_ops \<Rightarrow> 'g \<Rightarrow> nat list \<Rightarrow> direction \<Rightarrow> nat list" where
  "scc_external_neighbors G g component dir =
     foldl (\<lambda>neighbors n. if n \<notin> set component \<and> n \<notin> set neighbors then neighbors @ [n] else neighbors) []
       (concat (map (\<lambda>c. neighbors_directed G g c dir) component))"

text \<open>
  The loop that drains the component, and the whole function. \<open>display\<close> is the lossy rendering of a
  path that is not UTF-8.
\<close>

definition drain_node ::
  "'g petgraph_ops \<Rightarrow> (path \<Rightarrow> string) \<Rightarrow> nat \<Rightarrow> nat \<Rightarrow>
    'g \<times> node_map \<times> string set \<times> PreprocDiagnostic list \<Rightarrow>
    ('g \<times> node_map \<times> string set \<times> PreprocDiagnostic list) option" where
  "drain_node G display replacement c = (\<lambda>(g, nodes, paths, diagnostics).
     let (g, w) = remove_node G g c in do {
       path \<leftarrow> w;
       let (paths, diagnostics) = (case path_to_str path of
             Some s \<Rightarrow> (insert s paths, diagnostics)
           | None \<Rightarrow> (paths, diagnostics @ [NonUtf8CyclePath (display path)]));
       _ \<leftarrow> nodes path;
       Some (g, nodes(path \<mapsto> replacement), paths, diagnostics)
     })"

definition collapse_one_component ::
  "'g petgraph_ops \<Rightarrow> (path \<Rightarrow> string) \<Rightarrow> nat list \<Rightarrow> 'g \<Rightarrow> node_map \<Rightarrow> PreprocDiagnostic list \<Rightarrow>
    (nat \<times> string set \<times> 'g \<times> node_map \<times> PreprocDiagnostic list) option" where
  "collapse_one_component G display component g nodes diagnostics =
     (let incoming = scc_external_neighbors G g component Incoming;
          outgoing = scc_external_neighbors G g component Outgoing;
          (g, replacement) = add_node G g []
      in do {
        g \<leftarrow> for_each (\<lambda>i g. add_edge G g i replacement) incoming g;
        g \<leftarrow> for_each (\<lambda>o' g. add_edge G g replacement o') outgoing g;
        (g, nodes, paths, diagnostics) \<leftarrow>
          for_each (drain_node G display replacement) component (g, nodes, {}, diagnostics);
        Some (replacement, paths, g, nodes, diagnostics @ [IncludeCycle (sorted_list_of_set paths)])
      })"

definition collapse_component ::
  "'g petgraph_ops \<Rightarrow> (path \<Rightarrow> string) \<Rightarrow> nat list \<Rightarrow>
    'g \<times> node_map \<times> PreprocDiagnostic list \<times> (nat \<Rightarrow> string set option) \<Rightarrow>
    ('g \<times> node_map \<times> PreprocDiagnostic list \<times> (nat \<Rightarrow> string set option)) option" where
  "collapse_component G display component = (\<lambda>(g, nodes, diagnostics, scc_map).
     if length component > 1 then do {
       (replacement, paths, g, nodes, diagnostics) \<leftarrow>
         collapse_one_component G display component g nodes diagnostics;
       Some (g, nodes, diagnostics, scc_map(replacement \<mapsto> paths))
     } else Some (g, nodes, diagnostics, scc_map))"

definition collapse_scc ::
  "'g petgraph_ops \<Rightarrow> (path \<Rightarrow> string) \<Rightarrow> 'g \<Rightarrow> node_map \<Rightarrow> PreprocDiagnostic list \<Rightarrow>
    ('g \<times> node_map \<times> PreprocDiagnostic list \<times> (nat \<Rightarrow> string set option)) option" where
  "collapse_scc G display g nodes diagnostics =
     for_each (collapse_component G display) (kosaraju_scc G g) (g, nodes, diagnostics, Map.empty)"

section \<open>The closures\<close>

datatype NodeContribution = ContribPath string | ContribNonUtf8 path

text \<open>\<open>merge_sorted_ids\<close>: the loop with its two cursors, then what is left of both slices.\<close>

function (sequential) merge_loop :: "nat list \<Rightarrow> nat list \<Rightarrow> nat \<Rightarrow> nat \<Rightarrow> nat list \<Rightarrow> nat \<times> nat \<times> nat list" where
  "merge_loop a b i j out =
     (if i < length a \<and> j < length b then
        (let left = a ! i; right = b ! j in
         merge_loop a b (if left \<le> right then i + 1 else i) (if right \<le> left then j + 1 else j)
           (out @ [min left right]))
      else (i, j, out))"
  by pat_completeness auto
termination
  by (relation "measure (\<lambda>(a, b, i, j, out). (length a - i) + (length b - j))") auto

declare merge_loop.simps [simp del]

definition merge_sorted_ids :: "nat list \<Rightarrow> nat list \<Rightarrow> nat list option" where
  "merge_sorted_ids a b =
     (let (i, j, out) = merge_loop a b 0 0 [] in do {
        as \<leftarrow> slice a i (length a);
        bs \<leftarrow> slice b j (length b);
        Some (out @ as @ bs)
      })"

definition node_entries ::
  "'g petgraph_ops \<Rightarrow> hash_order \<Rightarrow> 'g \<Rightarrow> (nat \<Rightarrow> string set option) \<Rightarrow> nat \<Rightarrow> NodeContribution list" where
  "node_entries G H g scc_map node =
     (case node_weight G g node of
        None \<Rightarrow> []
      | Some weight \<Rightarrow>
          if weight = [] then
            (case scc_map node of
               None \<Rightarrow> []
             | Some paths \<Rightarrow> map ContribPath (order_members H node paths))
          else (case path_to_str weight of
                  None \<Rightarrow> [ContribNonUtf8 weight] | Some s \<Rightarrow> [ContribPath s]))"

definition index_node_contributions ::
  "'g petgraph_ops \<Rightarrow> hash_order \<Rightarrow> 'g \<Rightarrow> (nat \<Rightarrow> string set option) \<Rightarrow>
    (NodeContribution list \<times> (nat \<times> nat) list) option" where
  "index_node_contributions G H g scc_map =
     for_each (\<lambda>node (entries, own).
         let start = length entries; entries = entries @ node_entries G H g scc_map node in
         if node < length own then Some (entries, own[node := (start, length entries)]) else None)
       (node_indices G g) ([], replicate (node_bound G g) (0, 0))"

definition node_closure ::
  "'g petgraph_ops \<Rightarrow> 'g \<Rightarrow> (nat \<times> nat) list \<Rightarrow> nat \<Rightarrow> nat list list \<Rightarrow> nat list list option" where
  "node_closure G g own node closures = do {
     (start, stop) \<leftarrow> byte_at own node;
     acc \<leftarrow> for_each (\<lambda>succ acc. do { c \<leftarrow> byte_at closures succ; merge_sorted_ids acc c })
       (neighbors_directed G g node Outgoing) [start..<stop];
     if node < length closures then Some (closures[node := acc]) else None
   }"

definition compute_include_closures ::
  "'g petgraph_ops \<Rightarrow> hash_order \<Rightarrow> 'g \<Rightarrow> (nat \<Rightarrow> string set option) \<Rightarrow>
    (NodeContribution list \<times> nat list list) option option" where
  "compute_include_closures G H g scc_map =
     (case toposort G g of
        None \<Rightarrow> Some None
      | Some order \<Rightarrow> do {
          (entries, own) \<leftarrow> index_node_contributions G H g scc_map;
          closures \<leftarrow> for_each (node_closure G g own) (rev order) (replicate (node_bound G g) []);
          Some (Some (entries, closures))
        })"

definition materialize ::
  "(path \<Rightarrow> string) \<Rightarrow> NodeContribution list \<Rightarrow> nat list list \<Rightarrow> nat \<Rightarrow>
    string set \<times> PreprocDiagnostic list \<Rightarrow> string set \<times> PreprocDiagnostic list" where
  "materialize display entries closures start x_inc =
     (case byte_at closures start of
        None \<Rightarrow> x_inc
      | Some ids \<Rightarrow>
          foldl (\<lambda>(x_inc, diagnostics) id.
              case byte_at entries id of
                None \<Rightarrow> (x_inc, diagnostics)
              | Some (ContribPath path) \<Rightarrow> (insert path x_inc, diagnostics)
              | Some (ContribNonUtf8 path) \<Rightarrow>
                  (x_inc, diagnostics @ [NonUtf8IndirectInclude (display path)]))
            x_inc ids)"

definition accumulate_reachable_includes ::
  "'g petgraph_ops \<Rightarrow> (path \<Rightarrow> string) \<Rightarrow> 'g \<Rightarrow> nat \<Rightarrow> (nat \<Rightarrow> string set option) \<Rightarrow>
    string set \<times> PreprocDiagnostic list \<Rightarrow> (string set \<times> PreprocDiagnostic list) option" where
  "accumulate_reachable_includes G display g start scc_map x_inc =
     for_each (\<lambda>node (x_inc, diagnostics). do {
         w \<leftarrow> node_weight G g node;
         if w = [] then do {
           paths \<leftarrow> scc_map node;
           Some (x_inc \<union> paths, diagnostics)
         }
         else case path_to_str w of
             Some s \<Rightarrow> Some (insert s x_inc, diagnostics)
           | None \<Rightarrow> Some (x_inc, diagnostics @ [NonUtf8IndirectInclude (display w)])
       }) (dfs_order G g start) x_inc"

section \<open>Recording\<close>

definition record_file ::
  "'g petgraph_ops \<Rightarrow> (path \<Rightarrow> string) \<Rightarrow> 'g \<Rightarrow> node_map \<Rightarrow> (nat \<Rightarrow> string set option) \<Rightarrow>
    (NodeContribution list \<times> nat list list) option \<Rightarrow> path \<Rightarrow>
    preproc_files \<times> PreprocDiagnostic list \<Rightarrow> (preproc_files \<times> PreprocDiagnostic list) option" where
  "record_file G display g nodes scc_map precomputed path = (\<lambda>(files, diagnostics). do {
     start \<leftarrow> nodes path;
     case files path of
       None \<Rightarrow> Some (files, diagnostics @ [NotPreprocessed path])
     | Some pf \<Rightarrow> do {
         (x_inc, diagnostics) \<leftarrow> (case precomputed of
             Some (entries, closures) \<Rightarrow>
               Some (materialize display entries closures start (indirect_includes pf, diagnostics))
           | None \<Rightarrow>
               accumulate_reachable_includes G display g start scc_map (indirect_includes pf, diagnostics));
         Some (files(path \<mapsto> pf\<lparr> indirect_includes := x_inc \<rparr>), diagnostics)
       }
   })"

definition record_indirect_includes ::
  "'g petgraph_ops \<Rightarrow> hash_order \<Rightarrow> (path \<Rightarrow> string) \<Rightarrow> 'g \<Rightarrow> node_map \<Rightarrow> (nat \<Rightarrow> string set option) \<Rightarrow>
    preproc_files \<times> PreprocDiagnostic list \<Rightarrow> (preproc_files \<times> PreprocDiagnostic list) option" where
  "record_indirect_includes G H display g nodes scc_map files = do {
     precomputed \<leftarrow> compute_include_closures G H g scc_map;
     for_each (record_file G display g nodes scc_map precomputed) (order_nodes H (dom nodes)) files
   }"

definition fix_includes ::
  "'g petgraph_ops \<Rightarrow> hash_order \<Rightarrow> (path \<Rightarrow> string) \<Rightarrow> preproc_files \<Rightarrow> file_table \<Rightarrow>
    (preproc_files \<times> PreprocDiagnostic list) option" where
  "fix_includes G H display files all_files = do {
     (g, nodes, diagnostics) \<leftarrow> build_include_graph G H files all_files [];
     (g, nodes, diagnostics, scc_map) \<leftarrow> collapse_scc G display g nodes diagnostics;
     (files, diagnostics) \<leftarrow> record_indirect_includes G H display g nodes scc_map (files, diagnostics);
     Some (files, sort diagnostics)
   }"

definition visible_macros :: "path \<Rightarrow> preproc_files \<Rightarrow> string set" where
  "visible_macros file files =
     (case files file of
        None \<Rightarrow> {}
      | Some pf \<Rightarrow> macros pf \<union>
          (\<Union>i\<in>indirect_includes pf.
             case files (path_of_str i) of None \<Rightarrow> {} | Some included \<Rightarrow> macros included))"

end
