(* ===== verification/Include_Build.thy ===== *)
theory Include_Build
  imports Include_Graph
begin

text \<open>
  \<open>build_include_graph\<close>: the graph it makes is the include relation of the files, one node for each
  path. The proofs need the laws of the graph library and of the iteration, so they are lemmas of the
  locale that joins the two interfaces.
\<close>

section \<open>The include relation\<close>

lemma guess_file_total: "\<exists>ps. guess_file cur inc all_files = Some ps"
  by (auto simp: guess_file_eq min_distance_candidates_def min_distance_loop_eq split: option.split)

text \<open>The file an include means: the least of the candidates \<open>guess_file\<close> leaves.\<close>

definition included :: "file_table \<Rightarrow> path \<Rightarrow> string \<Rightarrow> path option" where
  "included all_files file i =
     (case the (guess_file file i all_files) of [] \<Rightarrow> None | ps \<Rightarrow> Some (Min (set ps)))"

lemma resolve_single_include_eq:
  "resolve_single_include file i all_files = Some (included all_files file i)"
proof -
  obtain ps where "guess_file file i all_files = Some ps" using guess_file_total by blast
  then show ?thesis
    by (cases ps) (simp_all add: resolve_single_include_def included_def flip: Min.set_eq_fold)
qed

definition include_rel :: "preproc_files \<Rightarrow> file_table \<Rightarrow> (path \<times> path) set" where
  "include_rel files all_files =
     {(f, t). t \<noteq> f \<and> (\<exists>pf. files f = Some pf \<and> (\<exists>i\<in>direct_includes pf. included all_files f i = Some t))}"

definition finite_files :: "preproc_files \<Rightarrow> bool" where
  "finite_files files \<longleftrightarrow> finite (dom files) \<and> (\<forall>pf\<in>ran files. finite (direct_includes pf))"

text \<open>The edges from \<open>file\<close> that a list of its includes gives.\<close>

definition edges_of :: "file_table \<Rightarrow> path \<Rightarrow> string set \<Rightarrow> (path \<times> path) set" where
  "edges_of all_files file is = {(file, t) | t. t \<noteq> file \<and> (\<exists>i\<in>is. included all_files file i = Some t)}"

locale include_run = petgraph G + hash_iteration H
  for G :: "'g petgraph_ops" and H :: hash_order

interpretation list_run: include_run list_petgraph sorted_order
  by standard

section \<open>Building\<close>

context include_run begin

text \<open>The graph holds the paths \<open>P\<close> and the edges \<open>E\<close> between them.\<close>

definition holds :: "'g \<Rightarrow> node_map \<Rightarrow> path set \<Rightarrow> (path \<times> path) set \<Rightarrow> bool" where
  "holds g nodes P E \<longleftrightarrow> graph_ok G g \<and> dom nodes = P \<and>
     (\<forall>p n. nodes p = Some n \<longleftrightarrow> node_weight G g n = Some p) \<and> E \<subseteq> P \<times> P \<and>
     graph_edges G g = {(n, m). \<exists>f t. (f, t) \<in> E \<and> nodes f = Some n \<and> nodes t = Some m}"

lemma holds_ensure_node:
  assumes h: "holds g nodes P E" and e: "ensure_node G g nodes f = (g', nodes', n)"
  shows "holds g' nodes' (insert f P) E \<and> nodes' f = Some n \<and> nodes \<subseteq>\<^sub>m nodes'"
proof (cases "nodes f")
  case (Some m)
  then have "f \<in> P" using h by (auto simp: holds_def)
  then show ?thesis using Some e h by (auto simp: ensure_node_def insert_absorb)
next
  case None
  then have a: "add_node G g f = (g', n)" and n': "nodes' = nodes(f \<mapsto> n)"
    using e by (auto simp: ensure_node_def split: prod.splits)
  have ok: "graph_ok G g" using h by (simp add: holds_def)
  note law = add_node_ok[OF ok a] add_node_fresh[OF ok a] add_node_weight[OF ok a] add_node_edges[OF ok a]
  have EP: "E \<subseteq> P \<times> P" using h by (simp add: holds_def)
  have fp: "f \<notin> P" using None h by (auto simp: holds_def)
  have same: "nodes' p = nodes p" if "p \<in> P" for p using that fp by (auto simp: n')
  have w: "nodes p = Some m \<longleftrightarrow> node_weight G g m = Some p" for p m using h by (simp add: holds_def)
  have "nodes' p = Some m \<longleftrightarrow> node_weight G g' m = Some p" for p m
    using law(2) None w[of p m] w[of f m] by (auto simp: n' law(3))
  moreover have "(\<exists>f' t. (f', t) \<in> E \<and> nodes' f' = Some a \<and> nodes' t = Some b) \<longleftrightarrow>
      (\<exists>f' t. (f', t) \<in> E \<and> nodes f' = Some a \<and> nodes t = Some b)" for a b
    using EP by (intro iff_exI conj_cong refl) (auto simp: same)
  ultimately show ?thesis
    using h law(1,4) None by (auto simp: holds_def map_le_def n')
qed

lemma holds_add_edge:
  assumes h: "holds g nodes P E" and f: "nodes f = Some n" and t: "nodes t = Some m"
  shows "\<exists>g'. add_edge G g n m = Some g' \<and> holds g' nodes P (insert (f, t) E)"
proof -
  have ok: "graph_ok G g" and w: "\<And>p n. nodes p = Some n \<longleftrightarrow> node_weight G g n = Some p"
    using h by (auto simp: holds_def)
  have "n \<in> graph_nodes G g" "m \<in> graph_nodes G g"
    using f t w by (auto simp: graph_nodes_def)
  then obtain g' where g': "add_edge G g n m = Some g'" "graph_ok G g'"
    "node_weight G g' = node_weight G g" "graph_edges G g' = insert (n, m) (graph_edges G g)"
    using add_edge_ok[OF ok] by blast
  have e: "graph_edges G g = {(a, b). \<exists>p q. (p, q) \<in> E \<and> nodes p = Some a \<and> nodes q = Some b}"
    and "E \<subseteq> P \<times> P" using h by (auto simp: holds_def)
  have "graph_edges G g' = {(a, b). \<exists>p q. (p, q) \<in> insert (f, t) E \<and> nodes p = Some a \<and> nodes q = Some b}"
    unfolding g'(4) e using f t by auto
  then show ?thesis using h g' f t by (auto simp: holds_def)
qed

lemma build_include_holds:
  assumes h: "holds g nodes P E" and f: "nodes file = Some node"
  shows "\<exists>g' nodes' ds'. build_include G all_files file node i (g, nodes, ds) = Some (g', nodes', ds') \<and>
    holds g' nodes' (P \<union> snd ` edges_of all_files file {i}) (E \<union> edges_of all_files file {i}) \<and>
    nodes' file = Some node"
proof (cases "included all_files file i")
  case None
  then show ?thesis using assms by (simp add: build_include_def resolve_single_include_eq edges_of_def)
next
  case (Some t)
  show ?thesis
  proof (cases "t = file")
    case True
    then show ?thesis
      using Some assms by (simp add: build_include_def resolve_single_include_eq edges_of_def)
  next
    case False
    then have e: "edges_of all_files file {i} = {(file, t)}" using Some by (auto simp: edges_of_def)
    obtain g1 nodes1 n where en: "ensure_node G g nodes t = (g1, nodes1, n)" by (metis prod_cases3)
    note h' = holds_ensure_node[OF h en]
    then have h1: "holds g1 nodes1 (insert t P) E" "nodes1 t = Some n" "nodes1 file = Some node"
      using f by (auto simp: map_le_def dom_def)
    obtain g2 where "add_edge G g1 node n = Some g2" "holds g2 nodes1 (insert t P) (insert (file, t) E)"
      using holds_add_edge[OF h1(1) h1(3) h1(2)] by blast
    then show ?thesis
      using Some False en h1(3) by (simp add: build_include_def resolve_single_include_eq e)
  qed
qed

lemma build_file_holds:
  assumes h: "holds g nodes P E" and f: "files file = Some pf" and fin: "finite (direct_includes pf)"
  shows "\<exists>g' nodes' ds'. build_file G H files all_files file (g, nodes, ds) = Some (g', nodes', ds') \<and>
    holds g' nodes' (insert file P \<union> snd ` edges_of all_files file (direct_includes pf))
      (E \<union> edges_of all_files file (direct_includes pf))"
proof -
  let ?is = "order_includes H file (direct_includes pf)"
  obtain g1 nodes1 node where en: "ensure_node G g nodes file = (g1, nodes1, node)" by (metis prod_cases3)
  then have h1: "holds g1 nodes1 (insert file P) E" "nodes1 file = Some node"
    using holds_ensure_node[OF h] by auto
  have mono: "edges_of all_files file (insert x (set xs)) =
      edges_of all_files file (set xs) \<union> edges_of all_files file {x}" for xs x
    by (auto simp: edges_of_def)
  have "\<exists>s'. for_each (build_include G all_files file node) ?is (g1, nodes1, ds) = Some s' \<and>
    (\<exists>g' nodes' ds'. s' = (g', nodes', ds') \<and> nodes' file = Some node \<and>
      holds g' nodes' (insert file P \<union> snd ` edges_of all_files file (set ?is))
        (E \<union> edges_of all_files file (set ?is)))"
  proof (rule for_each_invariant)
    show "\<exists>g' nodes' ds'. (g1, nodes1, ds) = (g', nodes', ds') \<and> nodes' file = Some node \<and>
      holds g' nodes' (insert file P \<union> snd ` edges_of all_files file (set []))
        (E \<union> edges_of all_files file (set []))"
      using h1 by (simp add: edges_of_def)
  next
    fix xs x ys and s :: "'g \<times> node_map \<times> PreprocDiagnostic list"
    assume "\<exists>g' nodes' ds'. s = (g', nodes', ds') \<and> nodes' file = Some node \<and>
      holds g' nodes' (insert file P \<union> snd ` edges_of all_files file (set xs))
        (E \<union> edges_of all_files file (set xs))"
    then obtain g' nodes' ds' where s: "s = (g', nodes', ds')" "nodes' file = Some node"
      "holds g' nodes' (insert file P \<union> snd ` edges_of all_files file (set xs))
        (E \<union> edges_of all_files file (set xs))" by blast
    show "\<exists>s'. build_include G all_files file node x s = Some s' \<and>
      (\<exists>g' nodes' ds'. s' = (g', nodes', ds') \<and> nodes' file = Some node \<and>
        holds g' nodes' (insert file P \<union> snd ` edges_of all_files file (set (xs @ [x])))
          (E \<union> edges_of all_files file (set (xs @ [x]))))"
      using build_include_holds[OF s(3,2), of all_files x ds'] s(1)
      by (fastforce simp: mono image_Un Un_assoc)
  qed
  then show ?thesis
    using f en order_includes[OF fin] by (auto simp: build_file_def)
qed

lemma build_include_graph_holds:
  assumes fin: "finite_files files"
  shows "\<exists>g nodes ds'. build_include_graph G H files all_files ds = Some (g, nodes, ds') \<and>
    holds g nodes (dom files \<union> Range (include_rel files all_files)) (include_rel files all_files)"
proof -
  let ?R = "include_rel files all_files"
  let ?E = "\<lambda>xs. {(f, t) \<in> ?R. f \<in> set xs}"
  let ?fs = "order_files H (dom files)"
  have fs: "set ?fs = dom files" using fin order_files by (simp add: finite_files_def)
  have "\<exists>s'. for_each (build_file G H files all_files) ?fs (graph_new G, Map.empty, ds) = Some s' \<and>
    (\<exists>g' nodes' ds'. s' = (g', nodes', ds') \<and> holds g' nodes' (set ?fs \<union> Range (?E ?fs)) (?E ?fs))"
  proof (rule for_each_invariant)
    show "\<exists>g' nodes' ds'. (graph_new G, Map.empty, ds) = (g', nodes', ds') \<and>
        holds g' nodes' (set [] \<union> Range (?E [])) (?E [])"
      by (simp add: holds_def new_ok new_weight new_edges)
  next
    fix xs x ys and s :: "'g \<times> node_map \<times> PreprocDiagnostic list"
    assume split: "?fs = xs @ x # ys"
      and "\<exists>g' nodes' ds'. s = (g', nodes', ds') \<and> holds g' nodes' (set xs \<union> Range (?E xs)) (?E xs)"
    then obtain g' nodes' ds' where s: "s = (g', nodes', ds')"
      "holds g' nodes' (set xs \<union> Range (?E xs)) (?E xs)" by blast
    obtain pf where pf: "files x = Some pf" using fs split by (auto simp: dom_def)
    then have e: "edges_of all_files x (direct_includes pf) = {(f, t) \<in> ?R. f = x}"
      by (auto simp: edges_of_def include_rel_def)
    have f: "finite (direct_includes pf)" using fin pf by (auto simp: finite_files_def ran_def)
    have "?E (xs @ [x]) = ?E xs \<union> {(f, t) \<in> ?R. f = x}" by auto
    moreover have "set (xs @ [x]) \<union> Range (?E (xs @ [x])) =
        insert x (set xs \<union> Range (?E xs)) \<union> snd ` {(f, t) \<in> ?R. f = x}"
      by (force simp: image_iff)
    ultimately show "\<exists>s'. build_file G H files all_files x s = Some s' \<and>
        (\<exists>g' nodes' ds'. s' = (g', nodes', ds') \<and>
          holds g' nodes' (set (xs @ [x]) \<union> Range (?E (xs @ [x]))) (?E (xs @ [x])))"
      using build_file_holds[where files = files and all_files = all_files and ds = ds', OF s(2) pf f] s(1)
      by (simp add: e)
  qed
  note built = this
  have e: "{(f, t) \<in> ?R. f \<in> dom files} = ?R" by (auto simp: include_rel_def)
  show ?thesis using built unfolding build_include_graph_def fs e by blast
qed

end

end
