(* ===== verification/Include_Collapse.thy ===== *)
theory Include_Collapse
  imports Include_Build
begin

text \<open>
  \<open>collapse_scc\<close>: include cycles become one node. After the components \<open>M\<close> the graph is a quotient
  of the graph it started from: a map \<open>f\<close> takes every node to the node that now stands for it. The
  quotient has the reachability of the graph and, once all components are done, no cycle.
\<close>

section \<open>Quotients\<close>

definition scc_class :: "('a \<times> 'a) set \<Rightarrow> 'a \<Rightarrow> 'a set" where
  "scc_class E u = {v. (u, v) \<in> E\<^sup>* \<and> (v, u) \<in> E\<^sup>*}"

lemma scc_class_refl [simp]: "u \<in> scc_class E u"
  by (simp add: scc_class_def)

lemma scc_class_eq: "v \<in> scc_class E u \<Longrightarrow> scc_class E v = scc_class E u"
  by (auto simp: scc_class_def intro: rtrancl_trans)

text \<open>The map \<open>f\<close> joins the classes within \<open>M\<close> and nothing else.\<close>

definition quotient_map :: "'a set \<Rightarrow> ('a \<times> 'a) set \<Rightarrow> 'a set \<Rightarrow> ('a \<Rightarrow> 'b) \<Rightarrow> bool" where
  "quotient_map V E M f \<longleftrightarrow>
     (\<forall>u\<in>V. \<forall>v\<in>V. f u = f v \<longleftrightarrow> u = v \<or> u \<in> M \<and> v \<in> scc_class E u)"

definition quotient_edges :: "('a \<times> 'a) set \<Rightarrow> ('a \<Rightarrow> 'b) \<Rightarrow> ('b \<times> 'b) set" where
  "quotient_edges E f = {(f u, f v) | u v. (u, v) \<in> E \<and> f u \<noteq> f v}"

lemma quotient_map_reach: "\<lbrakk> quotient_map V E M f; u \<in> V; v \<in> V; f u = f v \<rbrakk> \<Longrightarrow> (u, v) \<in> E\<^sup>*"
  by (auto simp: quotient_map_def scc_class_def)

lemma quotient_reach:
  assumes q: "quotient_map V E M f" and E: "E \<subseteq> V \<times> V" and u: "u \<in> V" and v: "v \<in> V"
  shows "(f u, f v) \<in> (quotient_edges E f)\<^sup>* \<longleftrightarrow> (u, v) \<in> E\<^sup>*"
proof
  assume "(u, v) \<in> E\<^sup>*"
  then show "(f u, f v) \<in> (quotient_edges E f)\<^sup>*"
  proof (induction rule: rtrancl_induct)
    case (step v w)
    then have "f v = f w \<or> (f v, f w) \<in> quotient_edges E f" by (auto simp: quotient_edges_def)
    then show ?case using step.IH by (auto intro: rtrancl_into_rtrancl)
  qed simp
next
  have "\<forall>w\<in>V. f w = y \<longrightarrow> (u, w) \<in> E\<^sup>*" if "(f u, y) \<in> (quotient_edges E f)\<^sup>*" for y
    using that
  proof (induction rule: rtrancl_induct)
    case base
    then show ?case using quotient_map_reach[OF q u] by auto
  next
    case (step y z)
    then obtain a b where ab: "(a, b) \<in> E" "f a = y" "f b = z" by (auto simp: quotient_edges_def)
    then have V: "a \<in> V" "b \<in> V" using E by auto
    show ?case
    proof (intro ballI impI)
      fix w assume w: "w \<in> V" "f w = z"
      have "(u, a) \<in> E\<^sup>*" using step.IH ab(2) V(1) by blast
      moreover have "(b, w) \<in> E\<^sup>*" using quotient_map_reach[OF q V(2) w(1)] ab(3) w(2) by simp
      ultimately show "(u, w) \<in> E\<^sup>*" using ab(1) by (meson rtrancl.rtrancl_into_rtrancl rtrancl_trans)
    qed
  qed
  then show "(f u, f v) \<in> (quotient_edges E f)\<^sup>* \<Longrightarrow> (u, v) \<in> E\<^sup>*" using v by blast
qed

lemma quotient_acyclic:
  assumes q: "quotient_map V E M f" and E: "E \<subseteq> V \<times> V"
    and M: "\<And>u v. \<lbrakk> u \<in> V; v \<in> scc_class E u; v \<noteq> u \<rbrakk> \<Longrightarrow> u \<in> M"
  shows "acyclic (quotient_edges E f)"
proof -
  have False if c: "(x, x) \<in> (quotient_edges E f)\<^sup>+" for x
  proof -
    obtain y where "(x, y) \<in> quotient_edges E f" "(y, x) \<in> (quotient_edges E f)\<^sup>*"
      using c by (meson tranclD)
    then obtain u v where uv: "(u, v) \<in> E" "x = f u" "y = f v" "f u \<noteq> f v" "(f v, f u) \<in> (quotient_edges E f)\<^sup>*"
      by (auto simp: quotient_edges_def)
    then have V: "u \<in> V" "v \<in> V" using E by auto
    have "v \<in> scc_class E u"
      using quotient_reach[OF q E V(2,1)] uv by (auto simp: scc_class_def)
    moreover have "u \<in> M" using M[OF V(1) calculation] uv(4) by auto
    ultimately show False using q V uv(4) by (auto simp: quotient_map_def)
  qed
  then show ?thesis by (auto simp: acyclic_def)
qed

text \<open>Joining one more class \<open>C\<close>, into the new node \<open>r\<close>.\<close>

lemma quotient_map_join:
  assumes q: "quotient_map V E M f" and C: "\<And>c. c \<in> C \<Longrightarrow> C = scc_class E c" "C \<subseteq> V" "C \<inter> M = {}"
    and r: "r \<notin> f ` V"
  shows "quotient_map V E (M \<union> C) (\<lambda>u. if u \<in> C then r else f u)"
  unfolding quotient_map_def
proof (intro ballI)
  fix u v assume u: "u \<in> V" and v: "v \<in> V"
  have "u \<in> C \<Longrightarrow> v \<in> scc_class E u \<longleftrightarrow> v \<in> C" using C(1) by blast
  moreover have "u \<notin> C \<Longrightarrow> v \<in> C \<Longrightarrow> v \<notin> scc_class E u"
    using C(1) scc_class_eq scc_class_refl by metis
  ultimately show "((if u \<in> C then r else f u) = (if v \<in> C then r else f v)) =
      (u = v \<or> u \<in> M \<union> C \<and> v \<in> scc_class E u)"
    using q u v r by (auto simp: quotient_map_def)
qed

lemma quotient_class:
  assumes q: "quotient_map V E M f" and C: "\<And>c. c \<in> C \<Longrightarrow> C = scc_class E c" "C \<inter> M = {}"
    and f: "\<And>c. c \<in> C \<Longrightarrow> f c = c" "C \<subseteq> V" and u: "u \<in> V"
  shows "f u \<in> C \<longleftrightarrow> u \<in> C"
proof
  assume c: "f u \<in> C"
  then have "f (f u) = f u" using f(1) by simp
  then have "f u = u \<or> f u \<in> M \<and> u \<in> scc_class E (f u)" using q c f(2) u by (auto simp: quotient_map_def)
  then show "u \<in> C" using c C by auto
qed (simp add: f(1))

lemma quotient_edges_join:
  assumes cls: "\<And>u. u \<in> V \<Longrightarrow> f u \<in> C \<longleftrightarrow> u \<in> C" and r: "r \<notin> f ` V" "r \<notin> C" and E: "E \<subseteq> V \<times> V"
  defines "Q \<equiv> quotient_edges E f"
  shows "{(a, b) \<in> Q \<union> {n. n \<notin> C \<and> (\<exists>c\<in>C. (n, c) \<in> Q)} \<times> {r} \<union> {r} \<times> {n. n \<notin> C \<and> (\<exists>c\<in>C. (c, n) \<in> Q)}.
      a \<notin> C \<and> b \<notin> C} = quotient_edges E (\<lambda>u. if u \<in> C then r else f u)" (is "?L = ?R")
proof
  show "?L \<subseteq> ?R"
  proof (clarify, elim UnE)
    fix a b assume "(a, b) \<in> Q" "a \<notin> C" "b \<notin> C"
    then obtain u v where "(u, v) \<in> E" "a = f u" "b = f v" "f u \<noteq> f v" "u \<notin> C" "v \<notin> C"
      using cls E by (auto simp: Q_def quotient_edges_def)
    then show "(a, b) \<in> ?R" unfolding quotient_edges_def
      by (intro CollectI exI[of _ u] exI[of _ v]) auto
  next
    fix a b assume "(a, b) \<in> {n. n \<notin> C \<and> (\<exists>c\<in>C. (n, c) \<in> Q)} \<times> {r}"
    then obtain u v where uv: "(u, v) \<in> E" "a = f u" "b = r" "f u \<notin> C" "f v \<in> C"
      by (auto simp: Q_def quotient_edges_def)
    moreover from this have "u \<in> V" "v \<in> V" using E by auto
    ultimately have "u \<notin> C" "v \<in> C" "f u \<noteq> r" using cls r by auto
    then show "(a, b) \<in> ?R" using uv unfolding quotient_edges_def
      by (intro CollectI exI[of _ u] exI[of _ v]) auto
  next
    fix a b assume "(a, b) \<in> {r} \<times> {n. n \<notin> C \<and> (\<exists>c\<in>C. (c, n) \<in> Q)}"
    then obtain u v where uv: "(u, v) \<in> E" "a = r" "b = f v" "f u \<in> C" "f v \<notin> C"
      by (auto simp: Q_def quotient_edges_def)
    moreover from this have "u \<in> V" "v \<in> V" using E by auto
    ultimately have "u \<in> C" "v \<notin> C" "f v \<noteq> r" using cls r by auto
    then show "(a, b) \<in> ?R" using uv unfolding quotient_edges_def
      by (intro CollectI exI[of _ u] exI[of _ v]) auto
  qed
next
  show "?R \<subseteq> ?L"
  proof
    fix x assume "x \<in> ?R"
    then obtain u v where uv: "(u, v) \<in> E" "x = ((if u \<in> C then r else f u), (if v \<in> C then r else f v))"
      "(if u \<in> C then r else f u) \<noteq> (if v \<in> C then r else f v)"
      unfolding quotient_edges_def by blast
    then have V: "u \<in> V" "v \<in> V" using E by auto
    have "f u \<noteq> f v" using uv(3) cls[OF V(1)] cls[OF V(2)] by (auto split: if_splits)
    then have "(f u, f v) \<in> Q" using uv(1) by (auto simp: Q_def quotient_edges_def)
    then show "x \<in> ?L" using uv cls[OF V(1)] cls[OF V(2)] r by (auto split: if_splits)
  qed
qed

section \<open>Collapsing\<close>

text \<open>The names of a set of nodes: the paths that are UTF-8.\<close>

definition node_names :: "(nat \<Rightarrow> path option) \<Rightarrow> nat set \<Rightarrow> string set" where
  "node_names W C = {s. \<exists>v\<in>C. \<exists>p. W v = Some p \<and> path_to_str p = Some s}"

lemma foldl_external:
  "set (foldl (\<lambda>ns n. if n \<notin> C \<and> n \<notin> set ns then ns @ [n] else ns) acc xs) = set acc \<union> (set xs - C)"
  by (induction xs arbitrary: acc) auto

context include_run begin

lemma external_neighbors:
  assumes "graph_ok G g" "set C \<subseteq> graph_nodes G g"
  shows "set (scc_external_neighbors G g C Outgoing) = {n. n \<notin> set C \<and> (\<exists>c\<in>set C. (c, n) \<in> graph_edges G g)}"
    and "set (scc_external_neighbors G g C Incoming) = {n. n \<notin> set C \<and> (\<exists>c\<in>set C. (n, c) \<in> graph_edges G g)}"
proof -
  have "set (neighbors_directed G g c Outgoing) = {b. (c, b) \<in> graph_edges G g}"
    "set (neighbors_directed G g c Incoming) = {b. (b, c) \<in> graph_edges G g}" if "c \<in> set C" for c
    using that assms neighbors_out neighbors_in by auto
  then show "set (scc_external_neighbors G g C Outgoing) =
      {n. n \<notin> set C \<and> (\<exists>c\<in>set C. (c, n) \<in> graph_edges G g)}"
    "set (scc_external_neighbors G g C Incoming) =
      {n. n \<notin> set C \<and> (\<exists>c\<in>set C. (n, c) \<in> graph_edges G g)}"
    by (auto simp: scc_external_neighbors_def foldl_external)
qed

lemma add_edges:
  assumes "graph_ok G g" "\<And>x. x \<in> set xs \<Longrightarrow> s x \<in> graph_nodes G g \<and> t x \<in> graph_nodes G g"
  shows "\<exists>g'. for_each (\<lambda>x g. add_edge G g (s x) (t x)) xs g = Some g' \<and> graph_ok G g' \<and>
    node_weight G g' = node_weight G g \<and> graph_edges G g' = graph_edges G g \<union> (\<lambda>x. (s x, t x)) ` set xs"
proof (rule for_each_invariant)
  fix ys x zs g1
  assume "xs = ys @ x # zs" and g1: "graph_ok G g1 \<and> node_weight G g1 = node_weight G g \<and>
    graph_edges G g1 = graph_edges G g \<union> (\<lambda>x. (s x, t x)) ` set ys"
  then have "s x \<in> graph_nodes G g1" "t x \<in> graph_nodes G g1"
    using assms(2)[of x] by (auto simp: graph_nodes_def)
  then show "\<exists>g2. add_edge G g1 (s x) (t x) = Some g2 \<and> graph_ok G g2 \<and>
      node_weight G g2 = node_weight G g \<and>
      graph_edges G g2 = graph_edges G g \<union> (\<lambda>x. (s x, t x)) ` set (ys @ [x])"
    using add_edge_ok[of g1 "s x" "t x"] g1 by auto
qed (use assms(1) in simp)

lemma drain_nodes:
  assumes ok: "graph_ok G g" and C: "distinct C"
    and W: "\<And>c. c \<in> set C \<Longrightarrow> \<exists>p. W c = Some p \<and> node_weight G g c = Some p \<and> nodes p \<noteq> None"
  shows "\<exists>g' nodes' ds'. for_each (drain_node G display r) C (g, nodes, {}, ds) =
      Some (g', nodes', node_names W (set C), ds') \<and>
    graph_ok G g' \<and> node_weight G g' = (\<lambda>n. if n \<in> set C then None else node_weight G g n) \<and>
    graph_edges G g' = {(a, b) \<in> graph_edges G g. a \<notin> set C \<and> b \<notin> set C} \<and>
    nodes' = (\<lambda>p. if \<exists>c\<in>set C. W c = Some p then Some r else nodes p)"
proof -
  let ?I = "\<lambda>xs s. \<exists>g' nodes' ds'. s = (g', nodes', node_names W (set xs), ds') \<and>
    graph_ok G g' \<and> node_weight G g' = (\<lambda>n. if n \<in> set xs then None else node_weight G g n) \<and>
    graph_edges G g' = {(a, b) \<in> graph_edges G g. a \<notin> set xs \<and> b \<notin> set xs} \<and>
    nodes' = (\<lambda>p. if \<exists>c\<in>set xs. W c = Some p then Some r else nodes p)"
  have "\<exists>s'. for_each (drain_node G display r) C (g, nodes, {}, ds) = Some s' \<and> ?I C s'"
  proof (rule for_each_invariant)
    show "?I [] (g, nodes, {}, ds)" using ok by (simp add: node_names_def)
  next
    fix xs c ys and s :: "'g \<times> node_map \<times> string set \<times> PreprocDiagnostic list"
    assume split: "C = xs @ c # ys" and "?I xs s"
    then obtain g1 nodes1 ds1 where s: "s = (g1, nodes1, node_names W (set xs), ds1)"
      and g1: "graph_ok G g1" "node_weight G g1 = (\<lambda>n. if n \<in> set xs then None else node_weight G g n)"
        "graph_edges G g1 = {(a, b) \<in> graph_edges G g. a \<notin> set xs \<and> b \<notin> set xs}"
      and nodes1: "nodes1 = (\<lambda>p. if \<exists>c\<in>set xs. W c = Some p then Some r else nodes p)" by blast
    obtain p where p: "W c = Some p" "node_weight G g c = Some p" "nodes p \<noteq> None"
      using W[of c] split by auto
    have c: "c \<notin> set xs" using C split by simp
    obtain g2 w where rem: "remove_node G g1 c = (g2, w)" by (cases "remove_node G g1 c")
    note g2 = remove_node_ok[OF g1(1) rem]
    have w: "w = Some p" using g2 g1(2) c p(2) by simp
    have n1: "nodes1 p \<noteq> None" using p(3) by (simp add: nodes1)
    have names: "node_names W (insert c (set xs)) =
        (case path_to_str p of None \<Rightarrow> node_names W (set xs) | Some s \<Rightarrow> insert s (node_names W (set xs)))"
      using p(1) by (auto simp: node_names_def split: option.split)
    obtain ds2 where step: "drain_node G display r c s =
        Some (g2, nodes1(p \<mapsto> r), node_names W (set (xs @ [c])), ds2)"
      using rem w n1 by (cases "path_to_str p") (auto simp: drain_node_def s names)
    have "nodes1(p \<mapsto> r) = (\<lambda>q. if \<exists>c\<in>set (xs @ [c]). W c = Some q then Some r else nodes q)"
      using p(1) by (auto simp: nodes1 fun_eq_iff)
    moreover have "node_weight G g2 = (\<lambda>n. if n \<in> set (xs @ [c]) then None else node_weight G g n)"
      using g2 by (auto simp: g1(2) fun_eq_iff)
    moreover have "graph_edges G g2 = {(a, b) \<in> graph_edges G g. a \<notin> set (xs @ [c]) \<and> b \<notin> set (xs @ [c])}"
      using g2 by (auto simp: g1(3))
    ultimately show "\<exists>s'. drain_node G display r c s = Some s' \<and> ?I (xs @ [c]) s'"
      using step g2 by blast
  qed
  then show ?thesis by blast
qed

text \<open>
  The state after the components \<open>M\<close>, over the weights \<open>W\<close> and the edges \<open>E\<close> of the graph before the
  first.
\<close>

definition collapsed ::
  "(nat \<Rightarrow> path option) \<Rightarrow> (nat \<times> nat) set \<Rightarrow> nat set \<Rightarrow> (nat \<Rightarrow> nat) \<Rightarrow> 'g \<Rightarrow> node_map \<Rightarrow>
    (nat \<Rightarrow> string set option) \<Rightarrow> bool" where
  "collapsed W E M f g nodes scc_map \<longleftrightarrow>
     graph_ok G g \<and> graph_nodes G g = f ` dom W \<and> quotient_map (dom W) E M f \<and>
     (\<forall>u\<in>dom W. u \<notin> M \<longrightarrow> f u = u \<and> node_weight G g u = W u) \<and>
     (\<forall>u\<in>dom W \<inter> M. node_weight G g (f u) = Some [] \<and>
        scc_map (f u) = Some (node_names W (scc_class E u))) \<and>
     graph_edges G g = quotient_edges E f \<and>
     dom nodes = ran W \<and> (\<forall>u p. W u = Some p \<longrightarrow> nodes p = Some (f u))"

lemma collapse_one:
  assumes inv: "collapsed W E M f g nodes scc_map" and E: "E \<subseteq> dom W \<times> dom W"
    and W: "\<forall>u v p. W u = Some p \<longrightarrow> W v = Some p \<longrightarrow> u = v"
    and C: "distinct C" "set C \<subseteq> dom W" "set C \<inter> M = {}" "C \<noteq> []"
      "\<forall>c\<in>set C. set C = scc_class E c"
  shows "\<exists>r g' nodes' ds'. collapse_one_component G display C g nodes ds =
      Some (r, node_names W (set C), g', nodes', ds') \<and>
    collapsed W E (M \<union> set C) (\<lambda>u. if u \<in> set C then r else f u) g' nodes'
      (scc_map(r \<mapsto> node_names W (set C)))"
proof -
  have C5: "\<And>c. c \<in> set C \<Longrightarrow> set C = scc_class E c" using C(5) by blast
  have ok: "graph_ok G g" and V: "graph_nodes G g = f ` dom W" and q: "quotient_map (dom W) E M f"
    and rest: "\<And>u. \<lbrakk> u \<in> dom W; u \<notin> M \<rbrakk> \<Longrightarrow> f u = u \<and> node_weight G g u = W u"
    and joined: "\<And>u. \<lbrakk> u \<in> dom W; u \<in> M \<rbrakk> \<Longrightarrow> node_weight G g (f u) = Some [] \<and>
        scc_map (f u) = Some (node_names W (scc_class E u))"
    and Eg: "graph_edges G g = quotient_edges E f"
    and nd: "dom nodes = ran W" "\<And>u p. W u = Some p \<Longrightarrow> nodes p = Some (f u)"
    using inv by (auto simp: collapsed_def)
  have fC: "f c = c" if "c \<in> set C" for c using that rest[of c] C(2,3) by auto
  have Cg: "set C \<subseteq> graph_nodes G g" using C(2) fC by (force simp: V)
  have cls: "f u \<in> set C \<longleftrightarrow> u \<in> set C" if "u \<in> dom W" for u
    using quotient_class[OF q C5 C(3) fC C(2) that] by blast
  obtain g1 r where add: "add_node G g [] = (g1, r)" by (cases "add_node G g []")
  note g1 = add_node_ok[OF ok add] add_node_weight[OF ok add] add_node_edges[OF ok add]
  have g1n: "graph_nodes G g1 = insert r (graph_nodes G g)" and rV: "r \<notin> f ` dom W"
    using add_node_nodes[OF ok add] by (auto simp: V)
  have rC: "r \<notin> set C" using rV Cg by (auto simp: V)
  define ins outs where "ins = scc_external_neighbors G g C Incoming"
    and "outs = scc_external_neighbors G g C Outgoing"
  note ext = external_neighbors[OF ok Cg, folded ins_def outs_def]
  have "set ins \<subseteq> graph_nodes G g" "set outs \<subseteq> graph_nodes G g"
    using edges_nodes[OF ok] by (auto simp: ext)
  note io = this
  obtain g2 where g2: "for_each (\<lambda>i g. add_edge G g i r) ins g1 = Some g2" "graph_ok G g2"
    "node_weight G g2 = node_weight G g1" "graph_edges G g2 = graph_edges G g1 \<union> (\<lambda>x. (x, r)) ` set ins"
    using add_edges[OF g1(1), of ins "\<lambda>x. x" "\<lambda>_. r"] io(1) by (auto simp: g1n)
  then have "graph_nodes G g2 = insert r (graph_nodes G g)" using g1n by (simp add: graph_nodes_def)
  then obtain g3 where g3: "for_each (\<lambda>o' g. add_edge G g r o') outs g2 = Some g3" "graph_ok G g3"
    "node_weight G g3 = node_weight G g1"
    "graph_edges G g3 = graph_edges G g2 \<union> (\<lambda>x. (r, x)) ` set outs"
    using add_edges[OF g2(2), of outs "\<lambda>_. r" "\<lambda>x. x"] io(2) g2(3) by auto
  have "\<exists>p. W c = Some p \<and> node_weight G g3 c = Some p \<and> nodes p \<noteq> None" if "c \<in> set C" for c
  proof -
    have c: "c \<in> dom W" "c \<notin> M" "c \<noteq> r" using that C(2,3) rC by auto
    then obtain p where p: "W c = Some p" by auto
    then have "node_weight G g3 c = Some p" using rest[OF c(1,2)] c(3) by (simp add: g3(3) g1(2))
    then show ?thesis using p nd(2)[OF p] by simp
  qed
  from drain_nodes[where W = W and nodes = nodes, OF g3(2) C(1) this] obtain g4 nodes4 ds4 where
    drain: "for_each (drain_node G display r) C (g3, nodes, {}, ds) =
        Some (g4, nodes4, node_names W (set C), ds4)"
    and g4: "graph_ok G g4" "node_weight G g4 = (\<lambda>n. if n \<in> set C then None else node_weight G g3 n)"
      "graph_edges G g4 = {(a, b) \<in> graph_edges G g3. a \<notin> set C \<and> b \<notin> set C}"
      "nodes4 = (\<lambda>p. if \<exists>c\<in>set C. W c = Some p then Some r else nodes p)" by blast
  let ?f = "\<lambda>u. if u \<in> set C then r else f u"
  have result: "collapse_one_component G display C g nodes ds = Some (r, node_names W (set C), g4, nodes4,
      ds4 @ [IncludeCycle (sorted_list_of_set (node_names W (set C)))])"
    using add g2(1) g3(1) drain by (simp add: collapse_one_component_def ins_def outs_def)
  have edges: "graph_edges G g4 = quotient_edges E ?f"
  proof -
    have "graph_edges G g3 = quotient_edges E f \<union> set ins \<times> {r} \<union> {r} \<times> set outs"
      by (auto simp: g3(4) g2(4) g1(3) Eg)
    then show ?thesis
      unfolding g4(3) ext Eg using quotient_edges_join[OF cls rV rC E] by simp
  qed
  have wt: "node_weight G g4 n = (if n \<in> set C then None else if n = r then Some [] else node_weight G g n)" for n
    by (simp add: g4(2) g3(3) g1(2))
  have nodes: "graph_nodes G g4 = ?f ` dom W"
  proof -
    have Vm: "node_weight G g n \<noteq> None \<longleftrightarrow> n \<in> f ` dom W" for n
      unfolding V[symmetric] by (simp add: graph_nodes_def)
    have "n \<in> graph_nodes G g4 \<longleftrightarrow> n \<in> insert r (f ` dom W) - set C" for n
      using wt[of n] rC Vm[of n] by (auto simp: graph_nodes_def)
    then have "graph_nodes G g4 = insert r (f ` dom W) - set C" by blast
    also have "... = ?f ` dom W"
    proof (intro set_eqI iffI)
      fix x assume x: "x \<in> insert r (f ` dom W) - set C"
      have c: "hd C \<in> set C" using C(4) by simp
      then have "hd C \<in> dom W" using C(2) by blast
      note c = c this
      show "x \<in> ?f ` dom W"
      proof (cases "x = r")
        case True
        then show ?thesis using c by (intro image_eqI[of _ _ "hd C"]) auto
      next
        case False
        then obtain u where "u \<in> dom W" "x = f u" "u \<notin> set C" using x cls by auto
        then show ?thesis by (intro image_eqI[of _ _ u]) auto
      qed
    next
      fix x assume "x \<in> ?f ` dom W"
      then obtain u where "u \<in> dom W" "x = ?f u" by blast
      then show "x \<in> insert r (f ` dom W) - set C" using cls[of u] rC by auto
    qed
    finally show ?thesis .
  qed
  have "collapsed W E (M \<union> set C) ?f g4 nodes4 (scc_map(r \<mapsto> node_names W (set C)))"
    unfolding collapsed_def
  proof (intro conjI ballI allI impI)
    show "quotient_map (dom W) E (M \<union> set C) ?f"
      by (rule quotient_map_join[OF q C5 C(2,3) rV])
  next
    fix u assume u: "u \<in> dom W" "u \<notin> M \<union> set C"
    then have fu: "f u = u" using rest by simp
    then have "u \<noteq> r" using rV u(1) by (metis image_eqI)
    then show "?f u = u" "node_weight G g4 u = W u"
      using fu u rest[of u] by (simp_all add: wt)
  next
    fix u assume u: "u \<in> dom W \<inter> (M \<union> set C)"
    have m: "?f u = f u \<and> f u \<notin> set C \<and> f u \<noteq> r" if "u \<notin> set C"
      using that u cls rV by auto
    show "node_weight G g4 (?f u) = Some []"
      using u m rC joined[of u] by (auto simp: wt)
    show "(scc_map(r \<mapsto> node_names W (set C))) (?f u) = Some (node_names W (scc_class E u))"
      using u m C5[of u] joined[of u] by auto
  next
    show "dom nodes4 = ran W" using nd C(2) by (auto simp: g4(4) ran_def split: if_splits)
  next
    fix u p assume p: "W u = Some p"
    then have "(\<exists>c\<in>set C. W c = Some p) \<longleftrightarrow> u \<in> set C" using W by blast
    then show "nodes4 p = Some (?f u)" using nd(2)[OF p] by (simp add: g4(4))
  qed (use g4(1) nodes edges in auto)
  then show ?thesis using result by blast
qed

lemma collapse_scc_collapsed:
  assumes ok: "graph_ok G g" and W: "W = node_weight G g" "\<forall>u v p. W u = Some p \<longrightarrow> W v = Some p \<longrightarrow> u = v"
    and nodes: "dom nodes = ran W" "\<And>u p. W u = Some p \<Longrightarrow> nodes p = Some u"
    and E: "E = graph_edges G g" "\<And>u. (u, u) \<notin> E"
  shows "\<exists>g' nodes' ds' scc_map M f. collapse_scc G display g nodes ds = Some (g', nodes', ds', scc_map) \<and>
    collapsed W E M f g' nodes' scc_map \<and>
    (\<forall>u v. u \<in> dom W \<and> v \<in> scc_class E u \<and> v \<noteq> u \<longrightarrow> u \<in> M)"
proof -
  let ?cs = "kosaraju_scc G g"
  have V: "graph_nodes G g = dom W" by (auto simp: graph_nodes_def W(1))
  have EV: "E \<subseteq> dom W \<times> dom W" using edges_nodes[OF ok] by (auto simp: E(1) V)
  have part: "distinct (concat ?cs)" "set (concat ?cs) = dom W" using scc_partition[OF ok] V by auto
  have cls: "set C = scc_class E c" if "C \<in> set ?cs" "c \<in> set C" for C c
    using scc_classes[OF ok that] by (simp add: scc_class_def E(1))
  define M where "M = (\<lambda>xs. \<Union>C\<in>{C \<in> set xs. length C > 1}. set C :: nat set)"
  let ?I = "\<lambda>xs s. \<exists>g' nodes' ds' scc_map f. s = (g', nodes', ds', scc_map) \<and>
    collapsed W E (M xs) f g' nodes' scc_map"
  have "\<exists>s'. for_each (collapse_component G display) ?cs (g, nodes, ds, Map.empty) = Some s' \<and> ?I ?cs s'"
  proof (rule for_each_invariant)
    have "quotient_edges E id = E" using E(2) by (force simp: quotient_edges_def)
    then have "collapsed W E (M []) id g nodes Map.empty"
      using ok nodes V by (auto simp: collapsed_def M_def quotient_map_def W(1) E(1))
    then show "?I [] (g, nodes, ds, Map.empty)" by blast
  next
    fix xs C ys and s :: "'g \<times> node_map \<times> PreprocDiagnostic list \<times> (nat \<Rightarrow> string set option)"
    assume split: "?cs = xs @ C # ys" and "?I xs s"
    then obtain g' nodes' ds' scc_map f where s: "s = (g', nodes', ds', scc_map)"
      "collapsed W E (M xs) f g' nodes' scc_map" by blast
    show "\<exists>s'. collapse_component G display C s = Some s' \<and> ?I (xs @ [C]) s'"
    proof (cases "length C > 1")
      case True
      then have M': "M (xs @ [C]) = M xs \<union> set C" by (auto simp: M_def)
      have C: "distinct C" "set C \<subseteq> dom W" "set C \<inter> M xs = {}" "C \<noteq> []"
        using part split True by (auto simp: M_def)
      have "\<forall>c\<in>set C. set C = scc_class E c" using cls split by auto
      from collapse_one[where display = display and ds = ds', OF s(2) EV W(2) C this] obtain r g2 nodes2 ds2 where
        "collapse_one_component G display C g' nodes' ds' = Some (r, node_names W (set C), g2, nodes2, ds2)"
        "collapsed W E (M (xs @ [C])) (\<lambda>u. if u \<in> set C then r else f u) g2 nodes2
          (scc_map(r \<mapsto> node_names W (set C)))"
        unfolding M' by blast
      then show ?thesis using True s(1) by (auto simp: collapse_component_def)
    next
      case False
      then have "M (xs @ [C]) = M xs" by (auto simp: M_def)
      then show ?thesis using False s by (auto simp: collapse_component_def)
    qed
  qed
  moreover have "u \<in> M ?cs" if u: "u \<in> dom W" "v \<in> scc_class E u" "v \<noteq> u" for u v
  proof -
    obtain C where C: "C \<in> set ?cs" "u \<in> set C" using u(1) part(2) by auto
    then have "{u, v} \<subseteq> set C" using cls[OF C] u(2) by auto
    then have "card {u, v} \<le> card (set C)" by (intro card_mono) auto
    then have "length C > 1" using u(3) card_length[of C] by auto
    then show ?thesis using C by (auto simp: M_def)
  qed
  ultimately show ?thesis unfolding collapse_scc_def by blast
qed

end

end
