(* ===== verification/Include_Closure.thy ===== *)
theory Include_Closure
  imports Include_Collapse
begin

text \<open>
  \<open>compute_include_closures\<close> and what is made of it: the closures filled in reverse topological order
  are the reachable nodes, \<open>fix_includes\<close> records with every file the files it includes directly or
  indirectly, and the macros visible to a file are those of these files.
\<close>

section \<open>Merging\<close>

text \<open>The reference: the union of two strictly sorted lists.\<close>

fun union_sorted :: "nat list \<Rightarrow> nat list \<Rightarrow> nat list" where
  "union_sorted [] ys = ys"
| "union_sorted xs [] = xs"
| "union_sorted (x # xs) (y # ys) =
     (if x < y then x # union_sorted xs (y # ys)
      else if y < x then y # union_sorted (x # xs) ys
      else x # union_sorted xs ys)"

lemma set_union_sorted: "set (union_sorted xs ys) = set xs \<union> set ys"
  by (induction xs ys rule: union_sorted.induct) auto

lemma union_sorted_sorted:
  "\<lbrakk> sorted_wrt (<) xs; sorted_wrt (<) ys \<rbrakk> \<Longrightarrow> sorted_wrt (<) (union_sorted xs ys)"
  by (induction xs ys rule: union_sorted.induct) (auto simp: set_union_sorted)

lemma union_sorted_Nil2 [simp]: "union_sorted xs [] = xs"
  by (cases xs) auto

lemma merge_loop_union:
  assumes "i \<le> length a" "j \<le> length b"
  shows "case merge_loop a b i j out of (i', j', out') \<Rightarrow> i' \<le> length a \<and> j' \<le> length b \<and>
    out' @ drop i' a @ drop j' b = out @ union_sorted (drop i a) (drop j b)"
  using assms
proof (induction a b i j out rule: merge_loop.induct)
  case (1 a b i j out)
  show ?case
  proof (cases "i < length a \<and> j < length b")
    case True
    then have d: "drop i a = a ! i # drop (Suc i) a" "drop j b = b ! j # drop (Suc j) b"
      by (simp_all add: Cons_nth_drop_Suc)
    have "merge_loop a b i j out = merge_loop a b (if a ! i \<le> b ! j then i + 1 else i)
        (if b ! j \<le> a ! i then j + 1 else j) (out @ [min (a ! i) (b ! j)])"
      using True by (subst merge_loop.simps) (simp add: Let_def)
    moreover note 1(1)[OF True refl refl]
    moreover have "min (a ! i) (b ! j) # union_sorted (drop (if a ! i \<le> b ! j then i + 1 else i) a)
        (drop (if b ! j \<le> a ! i then j + 1 else j) b) = union_sorted (drop i a) (drop j b)"
      by (cases "a ! i" "b ! j" rule: linorder_cases) (simp_all add: d)
    ultimately show ?thesis using True by (auto split: prod.splits)
  next
    case False
    then show ?thesis using 1(2,3) by (subst merge_loop.simps) auto
  qed
qed

lemma merge_sorted_ids_eq: "merge_sorted_ids a b = Some (union_sorted a b)"
  using merge_loop_union[of 0 a 0 b "[]"]
  by (auto simp: merge_sorted_ids_def span_all split: prod.splits)

section \<open>Names\<close>

text \<open>The names among contributions, and the names of the files a file includes, itself among them.\<close>

definition contributed :: "NodeContribution set \<Rightarrow> string set" where
  "contributed cs = {s. ContribPath s \<in> cs}"

definition indirect_names :: "(path \<times> path) set \<Rightarrow> path \<Rightarrow> string set" where
  "indirect_names R p = {s. \<exists>q. (p, q) \<in> R\<^sup>* \<and> path_to_str q = Some s}"

section \<open>The index of contributions\<close>

context include_run begin

lemma index_node_contributions_spec:
  assumes ok: "graph_ok G g"
  shows "\<exists>entries own. index_node_contributions G H g scc_map = Some (entries, own) \<and>
    length own = node_bound G g \<and>
    (\<forall>n\<in>graph_nodes G g. \<exists>s e. own ! n = (s, e) \<and> s \<le> e \<and> e \<le> length entries \<and>
      span entries s e = node_entries G H g scc_map n)"
proof -
  let ?ns = "node_indices G g"
  let ?step = "\<lambda>node (entries, own).
         let start = length entries; entries = entries @ node_entries G H g scc_map node in
         if node < length own then Some (entries, own[node := (start, length entries)]) else None"
  let ?I = "\<lambda>xs s. length (snd s) = node_bound G g \<and> (\<forall>n\<in>set xs. \<exists>a e. snd s ! n = (a, e) \<and> a \<le> e \<and>
      e \<le> length (fst s) \<and> span (fst s) a e = node_entries G H g scc_map n)"
  have "\<exists>s'. for_each ?step ?ns ([], replicate (node_bound G g) (0, 0)) = Some s' \<and> ?I ?ns s'"
  proof (rule for_each_invariant)
    fix xs n ys and s :: "NodeContribution list \<times> (nat \<times> nat) list"
    assume split: "?ns = xs @ n # ys" and inv: "?I xs s"
    obtain entries own where s: "s = (entries, own)" by (cases s)
    let ?es = "entries @ node_entries G H g scc_map n"
    have n: "n \<in> graph_nodes G g" "n \<notin> set xs" using split indices[OF ok] by auto
    then have lt: "n < length own" using bound[OF ok] inv s by simp
    have "span ?es a e = span entries a e" if "e \<le> length entries" for a e
      using that by (simp add: span_def)
    moreover have "span ?es (length entries) (length ?es) = node_entries G H g scc_map n"
      by (simp add: span_def)
    ultimately have "?I (xs @ [n]) (?es, own[n := (length entries, length ?es)])"
      using inv s n(2) lt by (fastforce simp: nth_list_update)
    then show "\<exists>s'. ?step n s = Some s' \<and> ?I (xs @ [n]) s'" using s lt by (simp add: Let_def)
  qed simp
  then show ?thesis using indices[OF ok] unfolding index_node_contributions_def by fastforce
qed

section \<open>The closures\<close>

definition own_ids :: "(nat \<times> nat) list \<Rightarrow> nat \<Rightarrow> nat set" where
  "own_ids own n = {fst (own ! n)..<snd (own ! n)}"

text \<open>The closure of \<open>n\<close> is sorted and holds what the nodes it reaches contribute.\<close>

definition closed :: "'g \<Rightarrow> (nat \<times> nat) list \<Rightarrow> nat list list \<Rightarrow> nat \<Rightarrow> bool" where
  "closed g own closures n \<longleftrightarrow> sorted_wrt (<) (closures ! n) \<and>
     set (closures ! n) = (\<Union>m\<in>(graph_edges G g)\<^sup>* `` {n}. own_ids own m)"

lemma reach_step: "E\<^sup>* `` {n} = insert n (\<Union>m\<in>E `` {n}. E\<^sup>* `` {m})"
  by (auto intro: converse_rtrancl_into_rtrancl elim: converse_rtranclE)

lemma node_closure_spec:
  assumes ok: "graph_ok G g" and n: "n \<in> graph_nodes G g"
    and len: "length own = node_bound G g" "length closures = node_bound G g"
    and succ: "\<And>m. (n, m) \<in> graph_edges G g \<Longrightarrow> closed g own closures m"
  shows "\<exists>acc. node_closure G g own n closures = Some (closures[n := acc]) \<and> sorted_wrt (<) acc \<and>
    set acc = (\<Union>m\<in>(graph_edges G g)\<^sup>* `` {n}. own_ids own m)"
proof -
  let ?ss = "neighbors_directed G g n Outgoing"
  obtain s e where own: "own ! n = (s, e)" by (cases "own ! n")
  have "\<exists>acc. for_each (\<lambda>succ acc. do { c \<leftarrow> byte_at closures succ; merge_sorted_ids acc c }) ?ss [s..<e] =
      Some acc \<and> (sorted_wrt (<) acc \<and> set acc = {s..<e} \<union> (\<Union>m\<in>set ?ss. set (closures ! m)))"
  proof (rule for_each_invariant)
    fix xs m ys acc
    assume split: "?ss = xs @ m # ys"
      and acc: "sorted_wrt (<) acc \<and> set acc = {s..<e} \<union> (\<Union>m\<in>set xs. set (closures ! m))"
    have m: "(n, m) \<in> graph_edges G g" using neighbors_out[OF ok n] split by auto
    then have "m < length closures" using edges_nodes[OF ok m] bound[OF ok] len(2) by auto
    moreover have "sorted_wrt (<) (closures ! m)" using succ[OF m] by (simp add: closed_def)
    ultimately show "\<exists>acc'. (do { c \<leftarrow> byte_at closures m; merge_sorted_ids acc c }) = Some acc' \<and>
        sorted_wrt (<) acc' \<and> set acc' = {s..<e} \<union> (\<Union>m\<in>set (xs @ [m]). set (closures ! m))"
      using acc by (auto simp: merge_sorted_ids_eq union_sorted_sorted set_union_sorted)
  qed simp
  then obtain acc where acc: "for_each (\<lambda>succ acc. do { c \<leftarrow> byte_at closures succ; merge_sorted_ids acc c }) ?ss
      [s..<e] = Some acc" "sorted_wrt (<) acc" "set acc = {s..<e} \<union> (\<Union>m\<in>set ?ss. set (closures ! m))" by blast
  have "(\<Union>m\<in>set ?ss. set (closures ! m)) =
      (\<Union>m\<in>graph_edges G g `` {n}. \<Union>k\<in>(graph_edges G g)\<^sup>* `` {m}. own_ids own k)"
    using neighbors_out[OF ok n] succ by (auto simp: closed_def)
  then have "set acc = (\<Union>m\<in>(graph_edges G g)\<^sup>* `` {n}. own_ids own m)"
    unfolding acc(3) by (subst reach_step) (auto simp: own_ids_def own)
  moreover have "n < node_bound G g" by (rule bound[OF ok n])
  ultimately show ?thesis using acc(1,2) own len by (auto simp: node_closure_def)
qed

lemma closures_spec:
  assumes ok: "graph_ok G g" and order: "toposort G g = Some order" and len: "length own = node_bound G g"
  shows "\<exists>closures. for_each (node_closure G g own) (rev order) (replicate (node_bound G g) []) = Some closures \<and>
    length closures = node_bound G g \<and> (\<forall>n\<in>set order. closed g own closures n)"
proof -
  let ?I = "\<lambda>xs closures. length closures = node_bound G g \<and> (\<forall>n\<in>set xs. closed g own closures n)"
  have "\<exists>closures. for_each (node_closure G g own) (rev order) (replicate (node_bound G g) []) = Some closures \<and>
    ?I (rev order) closures"
  proof (rule for_each_invariant)
    fix xs n ys closures
    assume split: "rev order = xs @ n # ys" and inv: "?I xs closures"
    have order': "order = rev ys @ n # rev xs" using arg_cong[OF split, of rev] by simp
    have "acyclic (graph_edges G g)" using toposort_cycle[OF ok] order by (metis option.distinct(1))
    then have so: "set order = graph_nodes G g" "distinct order"
      using toposort_order[OF ok] order by auto
    have n: "n \<in> graph_nodes G g" "n \<notin> set xs" using so order' by auto
    have succ: "closed g own closures m" if "(n, m) \<in> graph_edges G g" for m
      using toposort_edge[OF ok order order' that] inv by simp
    obtain acc where acc: "node_closure G g own n closures = Some (closures[n := acc])" "sorted_wrt (<) acc"
        "set acc = (\<Union>m\<in>(graph_edges G g)\<^sup>* `` {n}. own_ids own m)"
      using node_closure_spec[OF ok n(1) len _ succ] inv by auto
    have "closed g own (closures[n := acc]) m" if "m \<in> set (xs @ [n])" for m
      using that inv acc(2,3) bound[OF ok n(1)] n(2) by (cases "m = n") (auto simp: closed_def)
    then show "\<exists>s'. node_closure G g own n closures = Some s' \<and> ?I (xs @ [n]) s'"
      using acc(1) inv by auto
  qed simp
  then show ?thesis by simp
qed

lemma compute_include_closures_spec:
  assumes ok: "graph_ok G g" and ac: "acyclic (graph_edges G g)"
  shows "\<exists>entries closures. compute_include_closures G H g scc_map = Some (Some (entries, closures)) \<and>
    (\<forall>n\<in>graph_nodes G g. n < length closures \<and> (\<forall>id\<in>set (closures ! n). id < length entries) \<and>
      (!) entries ` set (closures ! n) =
        (\<Union>m\<in>(graph_edges G g)\<^sup>* `` {n}. set (node_entries G H g scc_map m)))"
proof -
  obtain order where order: "toposort G g = Some order" "set order = graph_nodes G g"
    using toposort_order[OF ok ac] by blast
  obtain entries own where idx: "index_node_contributions G H g scc_map = Some (entries, own)"
    "length own = node_bound G g"
    and own: "\<And>n. n \<in> graph_nodes G g \<Longrightarrow> \<exists>s e. own ! n = (s, e) \<and> s \<le> e \<and> e \<le> length entries \<and>
      span entries s e = node_entries G H g scc_map n"
    using index_node_contributions_spec[OF ok, of scc_map] by blast
  obtain closures where cl: "for_each (node_closure G g own) (rev order) (replicate (node_bound G g) []) = Some closures"
    "length closures = node_bound G g" "\<And>n. n \<in> graph_nodes G g \<Longrightarrow> closed g own closures n"
    using closures_spec[OF ok order(1) idx(2)] order(2) by auto
  have ids: "(\<forall>id\<in>own_ids own n. id < length entries) \<and>
      (!) entries ` own_ids own n = set (node_entries G H g scc_map n)" if n: "n \<in> graph_nodes G g" for n
  proof -
    obtain s e where se: "own ! n = (s, e)" "s \<le> e" "e \<le> length entries"
      "span entries s e = node_entries G H g scc_map n" using own[OF n] by blast
    have "set (span entries s e) = (!) entries ` {s..<e}"
      using se(3) by (simp add: span_map_nth)
    then show ?thesis using se by (auto simp: own_ids_def)
  qed
  have "n < length closures \<and> (\<forall>id\<in>set (closures ! n). id < length entries) \<and>
      (!) entries ` set (closures ! n) = (\<Union>m\<in>(graph_edges G g)\<^sup>* `` {n}. set (node_entries G H g scc_map m))"
    if n: "n \<in> graph_nodes G g" for n
  proof -
    have "m \<in> graph_nodes G g" if "(n, m) \<in> (graph_edges G g)\<^sup>*" for m
      using that n edges_nodes[OF ok] by (induction rule: rtrancl_induct) auto
    then have "\<forall>m\<in>(graph_edges G g)\<^sup>* `` {n}. (\<forall>id\<in>own_ids own m. id < length entries) \<and>
        (!) entries ` own_ids own m = set (node_entries G H g scc_map m)" using ids by auto
    then show ?thesis
      using cl(3)[OF n] bound[OF ok n] cl(2) by (auto simp: closed_def image_UN)
  qed
  then show ?thesis using order(1) idx(1) cl(1) by (auto simp: compute_include_closures_def)
qed

section \<open>Recording\<close>

lemma materialize_names:
  "\<lbrakk> start < length closures; \<forall>id\<in>set (closures ! start). id < length entries \<rbrakk> \<Longrightarrow>
    fst (materialize display entries closures start x) =
      fst x \<union> contributed ((!) entries ` set (closures ! start))"
proof -
  assume s: "start < length closures" and ids: "\<forall>id\<in>set (closures ! start). id < length entries"
  have "fst (foldl (\<lambda>(x_inc, diagnostics) id. case byte_at entries id of None \<Rightarrow> (x_inc, diagnostics)
      | Some (ContribPath path) \<Rightarrow> (insert path x_inc, diagnostics)
      | Some (ContribNonUtf8 path) \<Rightarrow> (x_inc, diagnostics @ [NonUtf8IndirectInclude (display path)])) x ids) =
    fst x \<union> contributed ((!) entries ` set ids)" if "\<forall>id\<in>set ids. id < length entries" for ids
    using that
  proof (induction ids arbitrary: x)
    case (Cons i ids)
    then show ?case
      by (cases x; cases "entries ! i") (auto simp: contributed_def)
  qed (simp add: contributed_def)
  then show ?thesis using s ids by (simp add: materialize_def)
qed

lemma contributed_entries:
  assumes "finite (dom W)" and v: "W u = Some p" "p \<noteq> []"
    and "u \<notin> M \<Longrightarrow> node_weight G g (f u) = Some p"
    and "u \<in> M \<Longrightarrow> node_weight G g (f u) = Some [] \<and>
      scc_map (f u) = Some (node_names W (scc_class E u))"
    and "scc_class E u \<subseteq> dom W"
  shows "contributed (set (node_entries G H g scc_map (f u))) =
    node_names W (if u \<in> M then scc_class E u else {u})"
proof (cases "u \<in> M")
  case True
  have "node_names W (scc_class E u) \<subseteq> (\<lambda>v. the (path_to_str (the (W v)))) ` dom W"
    by (force simp: node_names_def)
  then have "finite (node_names W (scc_class E u))" using assms(1) finite_subset by blast
  then show ?thesis
    using True assms(5) order_members by (auto simp: node_entries_def contributed_def)
next
  case False
  then show ?thesis
    using assms(2-4) by (auto simp: node_entries_def contributed_def node_names_def split: option.split)
qed

lemma node_names_UN: "node_names W (\<Union>v\<in>A. F v) = (\<Union>v\<in>A. node_names W (F v))"
  by (auto simp: node_names_def)

text \<open>What the closure of a node of the quotient contributes: the names of what it reaches.\<close>

lemma closure_names:
  assumes c: "collapsed W E M f g nodes scc_map" and E: "E \<subseteq> dom W \<times> dom W" and fin: "finite (dom W)"
    and ne: "[] \<notin> ran W" and u: "u \<in> dom W"
  shows "contributed (\<Union>m\<in>(graph_edges G g)\<^sup>* `` {f u}. set (node_entries G H g scc_map m)) =
    node_names W (E\<^sup>* `` {u})"
proof -
  have q: "quotient_map (dom W) E M f" and Eg: "graph_edges G g = quotient_edges E f"
    using c by (auto simp: collapsed_def)
  have reach: "v \<in> dom W" if "(u', v) \<in> E\<^sup>*" "u' \<in> dom W" for u' v
    using that E by (induction rule: rtrancl_induct) auto
  have img: "(graph_edges G g)\<^sup>* `` {f u} = f ` (E\<^sup>* `` {u})"
  proof (intro set_eqI iffI)
    fix m assume "m \<in> (graph_edges G g)\<^sup>* `` {f u}"
    then have r: "(f u, m) \<in> (quotient_edges E f)\<^sup>*" by (simp add: Eg)
    then have "\<exists>v\<in>dom W. m = f v"
      using u E by (induction rule: rtrancl_induct) (auto simp: quotient_edges_def)
    then obtain v where v: "v \<in> dom W" "m = f v" by blast
    then have "(u, v) \<in> E\<^sup>*" using quotient_reach[OF q E u v(1)] r by simp
    then show "m \<in> f ` (E\<^sup>* `` {u})" using v by auto
  next
    fix m assume "m \<in> f ` (E\<^sup>* `` {u})"
    then obtain v where v: "(u, v) \<in> E\<^sup>*" "m = f v" by auto
    then show "m \<in> (graph_edges G g)\<^sup>* `` {f u}"
      using quotient_reach[OF q E u reach[OF v(1) u]] by (simp add: Eg)
  qed
  have one: "contributed (set (node_entries G H g scc_map (f v))) =
      node_names W (if v \<in> M then scc_class E v else {v})" if v: "v \<in> dom W" for v
  proof -
    obtain p where p: "W v = Some p" using v by blast
    then have "p \<noteq> []" using ne by (auto simp: ran_def)
    moreover have "scc_class E v \<subseteq> dom W" using reach v by (auto simp: scc_class_def)
    ultimately show ?thesis
      using contributed_entries[OF fin p, of M g f scc_map E] c v p by (auto simp: collapsed_def)
  qed
  have "contributed (\<Union>m\<in>f ` (E\<^sup>* `` {u}). set (node_entries G H g scc_map m)) =
      (\<Union>v\<in>E\<^sup>* `` {u}. contributed (set (node_entries G H g scc_map (f v))))"
    by (auto simp: contributed_def)
  also have "... = (\<Union>v\<in>E\<^sup>* `` {u}. node_names W (if v \<in> M then scc_class E v else {v}))"
    using one reach[OF _ u] by auto
  also have "... = node_names W (\<Union>v\<in>E\<^sup>* `` {u}. if v \<in> M then scc_class E v else {v})"
    by (rule node_names_UN[symmetric])
  also have "(\<Union>v\<in>E\<^sup>* `` {u}. if v \<in> M then scc_class E v else {v}) = E\<^sup>* `` {u}"
    by (auto simp: scc_class_def split: if_splits intro: rtrancl_trans)
  finally show ?thesis by (simp add: img)
qed

lemma holds_reach:
  assumes h: "holds g nodes P R" and n: "nodes p = Some n"
  shows "node_names (node_weight G g) ((graph_edges G g)\<^sup>* `` {n}) =
    {s. \<exists>q. (p, q) \<in> R\<^sup>* \<and> path_to_str q = Some s}"
proof -
  have w: "nodes p = Some n \<longleftrightarrow> node_weight G g n = Some p" for p n using h by (simp add: holds_def)
  have E: "graph_edges G g = {(n, m). \<exists>f t. (f, t) \<in> R \<and> nodes f = Some n \<and> nodes t = Some m}"
    and P: "R \<subseteq> P \<times> P" "dom nodes = P"
    using h by (auto simp: holds_def)
  have r1: "\<exists>q. node_weight G g m = Some q \<and> (p, q) \<in> R\<^sup>*" if "(n, m) \<in> (graph_edges G g)\<^sup>*" for m
    using that
  proof (induction rule: rtrancl_induct)
    case base
    then show ?case using n w by auto
  next
    case (step m k)
    then obtain f t where ft: "(f, t) \<in> R" "nodes f = Some m" "nodes t = Some k" by (auto simp: E)
    have "(p, f) \<in> R\<^sup>*" using step.IH ft(2) w by auto
    then have "(p, t) \<in> R\<^sup>*" using ft(1) by (rule rtrancl_into_rtrancl)
    then show ?case using ft(3) w by auto
  qed
  have r2: "\<exists>m. nodes q = Some m \<and> (n, m) \<in> (graph_edges G g)\<^sup>*" if "(p, q) \<in> R\<^sup>*" for q
    using that
  proof (induction rule: rtrancl_induct)
    case base
    then show ?case using n by auto
  next
    case (step q t)
    then obtain m where m: "nodes q = Some m" "(n, m) \<in> (graph_edges G g)\<^sup>*" by blast
    obtain k where k: "nodes t = Some k" using step(2) P by auto
    have "(m, k) \<in> graph_edges G g" using step(2) m(1) k by (auto simp: E)
    then show ?case using m(2) k by (meson rtrancl_into_rtrancl)
  qed
  show ?thesis
  proof (intro set_eqI iffI)
    fix s assume "s \<in> node_names (node_weight G g) ((graph_edges G g)\<^sup>* `` {n})"
    then show "s \<in> {s. \<exists>q. (p, q) \<in> R\<^sup>* \<and> path_to_str q = Some s}"
      using r1 by (fastforce simp: node_names_def)
  next
    fix s assume "s \<in> {s. \<exists>q. (p, q) \<in> R\<^sup>* \<and> path_to_str q = Some s}"
    then obtain q where "(p, q) \<in> R\<^sup>*" "path_to_str q = Some s" by blast
    then show "s \<in> node_names (node_weight G g) ((graph_edges G g)\<^sup>* `` {n})"
      using r2[of q] w by (auto simp: node_names_def)
  qed
qed

lemma record_files:
  assumes fin: "finite (dom nodes)"
    and start: "\<forall>p\<in>dom nodes. \<exists>n. nodes p = Some n \<and> n < length closures \<and>
      (\<forall>id\<in>set (closures ! n). id < length entries) \<and>
      contributed ((!) entries ` set (closures ! n)) = names p"
    and dom: "dom files \<subseteq> dom nodes"
  shows "\<exists>ds'. for_each (record_file G display g nodes scc_map (Some (entries, closures)))
      (order_nodes H (dom nodes)) (files, ds) =
    Some (\<lambda>p. map_option (\<lambda>pf. pf\<lparr> indirect_includes := indirect_includes pf \<union> names p \<rparr>) (files p), ds')"
proof -
  let ?upd = "\<lambda>p. map_option (\<lambda>pf. pf\<lparr> indirect_includes := indirect_includes pf \<union> names p \<rparr>) (files p)"
  let ?order = "order_nodes H (dom nodes)"
  have o: "set ?order = dom nodes" "distinct ?order" using order_nodes[OF fin] by auto
  have "\<exists>s'. for_each (record_file G display g nodes scc_map (Some (entries, closures))) ?order (files, ds) =
    Some s' \<and> fst s' = (\<lambda>p. if p \<in> set ?order then ?upd p else files p)"
  proof (rule for_each_invariant)
    fix xs p ys and s :: "preproc_files \<times> PreprocDiagnostic list"
    assume split: "?order = xs @ p # ys" and inv: "fst s = (\<lambda>p. if p \<in> set xs then ?upd p else files p)"
    have p: "p \<in> dom nodes" "p \<notin> set xs" using o split by auto
    obtain n where n: "nodes p = Some n" "n < length closures"
      "\<forall>id\<in>set (closures ! n). id < length entries"
      "contributed ((!) entries ` set (closures ! n)) = names p" using start p(1) by blast
    have fp: "fst s p = files p" using inv p(2) by simp
    show "\<exists>s'. record_file G display g nodes scc_map (Some (entries, closures)) p s = Some s' \<and>
        fst s' = (\<lambda>q. if q \<in> set (xs @ [p]) then ?upd q else files q)"
    proof (cases "files p")
      case None
      then show ?thesis using n fp inv by (cases s) (auto simp: record_file_def fun_eq_iff)
    next
      case (Some pf)
      let ?m = "materialize display entries closures n (indirect_includes pf, snd s)"
      have "fst ?m = indirect_includes pf \<union> names p"
        using materialize_names[OF n(2,3), of display "(indirect_includes pf, snd s)"] n(4) by simp
      moreover obtain x ds where "?m = (x, ds)" by (cases ?m)
      ultimately show ?thesis using n(1) fp inv Some
        by (cases s) (auto simp: record_file_def fun_eq_iff)
    qed
  qed simp
  moreover have "(\<lambda>p. if p \<in> set ?order then ?upd p else files p) = ?upd"
  proof
    fix p
    show "(if p \<in> set ?order then ?upd p else files p) = ?upd p"
      using o dom by (cases "files p") auto
  qed
  ultimately show ?thesis by (metis prod.collapse)
qed

lemma fix_includes_spec:
  assumes fin: "finite_files files" and ne: "[] \<notin> dom files" "[] \<notin> Range (include_rel files all_files)"
  shows "\<exists>ds. fix_includes G H display files all_files =
    Some (\<lambda>p. map_option (\<lambda>pf. pf\<lparr> indirect_includes :=
        indirect_includes pf \<union> indirect_names (include_rel files all_files) p \<rparr>) (files p), ds)"
proof -
  let ?R = "include_rel files all_files"
  obtain g nodes ds where build: "build_include_graph G H files all_files [] = Some (g, nodes, ds)"
    and h: "holds g nodes (dom files \<union> Range ?R) ?R" using build_include_graph_holds[OF fin] by blast
  define W E where "W = node_weight G g" and "E = graph_edges G g"
  have ok: "graph_ok G g" and w: "\<And>p n. nodes p = Some n \<longleftrightarrow> W n = Some p"
    and dn: "dom nodes = dom files \<union> Range ?R"
    and Eh: "E = {(n, m). \<exists>f t. (f, t) \<in> ?R \<and> nodes f = Some n \<and> nodes t = Some m}"
    using h by (auto simp: holds_def W_def E_def)
  have V: "graph_nodes G g = dom W" by (auto simp: graph_nodes_def W_def)
  have irr: "(u, u) \<notin> E" for u using w by (auto simp: Eh include_rel_def)
  have inj: "\<forall>u v p. W u = Some p \<longrightarrow> W v = Some p \<longrightarrow> u = v" using w by (metis option.inject)
  have ran: "dom nodes = ran W" using w by (auto simp: ran_def dom_def)
  obtain g' nodes' ds' scc_map M f where col: "collapse_scc G display g nodes ds = Some (g', nodes', ds', scc_map)"
    and c: "collapsed W E M f g' nodes' scc_map"
    and M: "\<forall>u v. u \<in> dom W \<and> v \<in> scc_class E u \<and> v \<noteq> u \<longrightarrow> u \<in> M"
    using collapse_scc_collapsed[OF ok W_def inj ran _ E_def irr, of display ds] w by blast
  have ok': "graph_ok G g'" and V': "graph_nodes G g' = f ` dom W"
    and nd': "dom nodes' = ran W" "\<And>u p. W u = Some p \<Longrightarrow> nodes' p = Some (f u)"
    using c by (auto simp: collapsed_def)
  have EV: "E \<subseteq> dom W \<times> dom W" using edges_nodes[OF ok] by (auto simp: E_def V)
  have finW: "finite (dom W)" using finite_nodes[OF ok] V by simp
  have "acyclic (graph_edges G g')"
    using quotient_acyclic[of "dom W" E M f] c EV M by (auto simp: collapsed_def)
  then obtain entries closures where
    comp: "compute_include_closures G H g' scc_map = Some (Some (entries, closures))"
    and cl: "\<And>n. n \<in> graph_nodes G g' \<Longrightarrow> n < length closures \<and> (\<forall>id\<in>set (closures ! n). id < length entries) \<and>
      (!) entries ` set (closures ! n) = (\<Union>m\<in>(graph_edges G g')\<^sup>* `` {n}. set (node_entries G H g' scc_map m))"
    using compute_include_closures_spec[OF ok', of scc_map] by blast
  have start: "\<exists>n. nodes' p = Some n \<and> n < length closures \<and>
      (\<forall>id\<in>set (closures ! n). id < length entries) \<and>
      contributed ((!) entries ` set (closures ! n)) = indirect_names ?R p" if p: "p \<in> dom nodes'" for p
  proof -
    obtain u where u: "W u = Some p" using p nd'(1) by (auto simp: ran_def)
    then have "f u \<in> graph_nodes G g'" using V' by auto
    moreover have "contributed (\<Union>m\<in>(graph_edges G g')\<^sup>* `` {f u}. set (node_entries G H g' scc_map m)) =
        node_names W (E\<^sup>* `` {u})"
      using closure_names[OF c EV finW, of u] ne u ran dn by auto
    moreover have "node_names W (E\<^sup>* `` {u}) = indirect_names ?R p"
      using holds_reach[OF h, of p u] u w by (simp add: W_def E_def indirect_names_def)
    ultimately show ?thesis using cl[of "f u"] nd'(2)[OF u] by auto
  qed
  have "finite (dom nodes')" using nd'(1) finW by (simp add: finite_ran)
  moreover have "dom files \<subseteq> dom nodes'" using nd'(1) ran dn by auto
  ultimately obtain ds2 where "for_each (record_file G display g' nodes' scc_map (Some (entries, closures)))
      (order_nodes H (dom nodes')) (files, ds') =
    Some (\<lambda>p. map_option (\<lambda>pf. pf\<lparr> indirect_includes := indirect_includes pf \<union> indirect_names ?R p \<rparr>)
      (files p), ds2)"
    using record_files[where files = files and g = g' and nodes = nodes' and names = "indirect_names ?R" and display = display and scc_map = scc_map and ds = ds',
        OF _ ballI[OF start]] by blast
  then show ?thesis
    using build col comp by (simp add: fix_includes_def record_indirect_includes_def)
qed

end

end
