(* ===== verification/C_Names.thy ===== *)
theory C_Names
  imports Rust_Bytes "HOL-Library.Char_ord" "HOL-Library.List_Lexorder"
begin

text \<open>
  \<^verbatim>\<open>big-code-analysis-ast/src/c_langs_macros\<close>: the generated tables of the macro names that
  are known without a definition, and of the type names that are never macros. Both are searched
  with the \<^verbatim>\<open>binary_search\<close> of slices. The order of \<^verbatim>\<open>str\<close> is the
  lexicographic order of the bytes, which is the order of \<^typ>\<open>string\<close> here.
\<close>

section \<open>Binary search\<close>

text \<open>
  The standard library halves the slice: \<open>base\<close> is the first position that is left and \<open>n\<close> the
  number of them. The result is the position found (\<^verbatim>\<open>Ok\<close>) or none.
\<close>

function (sequential) halving_loop :: "'a::linorder list \<Rightarrow> 'a \<Rightarrow> nat \<Rightarrow> nat \<Rightarrow> nat" where
  "halving_loop xs key base n =
     (if n > 1 then
        (let half = n div 2; mid = base + half
         in halving_loop xs key (if xs ! mid > key then base else mid) (n - half))
      else base)"
  by pat_completeness auto
termination by (relation "measure (\<lambda>(xs, key, base, n). n)") auto

declare halving_loop.simps [simp del]

definition binary_search :: "'a::linorder list \<Rightarrow> 'a \<Rightarrow> nat option" where
  "binary_search xs key =
     (if xs = [] then None
      else (let base = halving_loop xs key 0 (length xs)
            in if xs ! base = key then Some base else None))"

lemma halving_loop_step:
  "n > 1 \<Longrightarrow> halving_loop xs key base n =
    halving_loop xs key (if xs ! (base + n div 2) > key then base else base + n div 2) (n - n div 2)"
  by (subst halving_loop.simps) (simp add: Let_def)

lemma halving_loop_range:
  "0 < n \<Longrightarrow> base \<le> halving_loop xs key base n \<and> halving_loop xs key base n < base + n"
proof (induction n arbitrary: base rule: less_induct)
  case (less n)
  show ?case
  proof (cases "n > 1")
    case True
    then have h: "n - n div 2 < n" "0 < n - n div 2" "base + n div 2 + (n - n div 2) \<le> base + n"
      "base + (n - n div 2) \<le> base + n" by auto
    show ?thesis
    proof (cases "xs ! (base + n div 2) > key")
      case left: True
      show ?thesis using halving_loop_step[OF True, of xs key base] left less.IH[OF h(1,2), of base] by (auto intro: less_le_trans[OF _ diff_le_self])
    next
      case False
      then show ?thesis
        using halving_loop_step[OF True, of xs key base] less.IH[OF h(1,2), of "base + n div 2"] h by simp
    qed
  next
    case False
    then show ?thesis using less.prems by (subst (1 2) halving_loop.simps) simp
  qed
qed

lemma halving_loop_found:
  assumes "sorted_wrt (<) xs"
  shows "\<lbrakk> base + n \<le> length xs; base \<le> k; k < base + n \<rbrakk> \<Longrightarrow>
    halving_loop xs (xs ! k) base n = k"
proof (induction n arbitrary: base rule: less_induct)
  case (less n)
  show ?case
  proof (cases "n > 1")
    case True
    define half where "half = n div 2"
    have h: "0 < half" "half < n" "half \<le> n - half" using True by (auto simp: half_def)
    have "xs ! (base + half) > xs ! k \<longleftrightarrow> k < base + half"
      using less.prems h sorted_wrt_nth_less[OF assms, of k "base + half"]
        sorted_wrt_nth_less[OF assms, of "base + half" k]
      by (cases "k < base + half"; cases "k = base + half") auto
    then show ?thesis
      using True h less.prems less.IH[of "n - half" base] less.IH[of "n - half" "base + half"]
      by (simp add: halving_loop_step half_def[symmetric])
  next
    case False
    then show ?thesis using less.prems by (subst halving_loop.simps) simp
  qed
qed

lemma binary_search_mem:
  assumes "sorted_wrt (<) xs"
  shows "binary_search xs key \<noteq> None \<longleftrightarrow> key \<in> set xs"
proof
  assume "binary_search xs key \<noteq> None"
  then show "key \<in> set xs"
    using halving_loop_range[of "length xs" 0 xs key]
    by (auto simp: binary_search_def Let_def split: if_splits) (metis nth_mem)
next
  assume "key \<in> set xs"
  then obtain k where "k < length xs" "xs ! k = key" by (auto simp: in_set_conv_nth)
  then show "binary_search xs key \<noteq> None"
    using halving_loop_found[OF assms, of 0 "length xs" k] by (auto simp: binary_search_def)
qed

section \<open>The tables\<close>

definition PREDEFINED_MACROS :: "string list" where
  "PREDEFINED_MACROS = [
    ''INT16_C'', ''INT16_MAX'', ''INT16_MIN'', ''INT32_C'', ''INT32_MAX'', ''INT32_MIN'',
    ''INT64_C'', ''INT64_MAX'', ''INT64_MIN'', ''INT8_C'', ''INT8_MAX'', ''INT8_MIN'',
    ''INTMAX_MAX'', ''INTMAX_MIN'', ''INTPTR_MAX'', ''INTPTR_MIN'', ''INT_FAST16_MAX'',
    ''INT_FAST16_MIN'', ''INT_FAST32_MAX'', ''INT_FAST32_MIN'', ''INT_FAST64_MAX'',
    ''INT_FAST64_MIN'', ''INT_FAST8_MAX'', ''INT_FAST8_MIN'', ''INT_LEAST16_MAX'',
    ''INT_LEAST16_MIN'', ''INT_LEAST32_MAX'', ''INT_LEAST32_MIN'', ''INT_LEAST64_MAX'',
    ''INT_LEAST64_MIN'', ''INT_LEAST8_MAX'', ''INT_LEAST8_MIN'', ''PRIX16'', ''PRIX32'', ''PRIX64'',
    ''PRIX8'', ''PRIXFAST16'', ''PRIXFAST32'', ''PRIXFAST64'', ''PRIXFAST8'', ''PRIXLEAST16'',
    ''PRIXLEAST32'', ''PRIXLEAST64'', ''PRIXLEAST8'', ''PRIXMAX'', ''PRIXPTR'', ''PRId16'',
    ''PRId32'', ''PRId64'', ''PRId8'', ''PRIdFAST16'', ''PRIdFAST32'', ''PRIdFAST64'',
    ''PRIdFAST8'', ''PRIdLEAST16'', ''PRIdLEAST32'', ''PRIdLEAST64'', ''PRIdLEAST8'', ''PRIdMAX'',
    ''PRIdPTR'', ''PRIi16'', ''PRIi32'', ''PRIi64'', ''PRIi8'', ''PRIiFAST16'', ''PRIiFAST32'',
    ''PRIiFAST64'', ''PRIiFAST8'', ''PRIiLEAST16'', ''PRIiLEAST32'', ''PRIiLEAST64'',
    ''PRIiLEAST8'', ''PRIiMAX'', ''PRIiPTR'', ''PRIo16'', ''PRIo32'', ''PRIo64'', ''PRIo8'',
    ''PRIoFAST16'', ''PRIoFAST32'', ''PRIoFAST64'', ''PRIoFAST8'', ''PRIoLEAST16'', ''PRIoLEAST32'',
    ''PRIoLEAST64'', ''PRIoLEAST8'', ''PRIoMAX'', ''PRIoPTR'', ''PRIu16'', ''PRIu32'', ''PRIu64'',
    ''PRIu8'', ''PRIuFAST16'', ''PRIuFAST32'', ''PRIuFAST64'', ''PRIuFAST8'', ''PRIuLEAST16'',
    ''PRIuLEAST32'', ''PRIuLEAST64'', ''PRIuLEAST8'', ''PRIuMAX'', ''PRIuPTR'', ''PRIx16'',
    ''PRIx32'', ''PRIx64'', ''PRIx8'', ''PRIxFAST16'', ''PRIxFAST32'', ''PRIxFAST64'',
    ''PRIxFAST8'', ''PRIxLEAST16'', ''PRIxLEAST32'', ''PRIxLEAST64'', ''PRIxLEAST8'', ''PRIxMAX'',
    ''PRIxPTR'', ''SCNd16'', ''SCNd32'', ''SCNd64'', ''SCNd8'', ''SCNdFAST16'', ''SCNdFAST32'',
    ''SCNdFAST64'', ''SCNdFAST8'', ''SCNdLEAST16'', ''SCNdLEAST32'', ''SCNdLEAST64'',
    ''SCNdLEAST8'', ''SCNdMAX'', ''SCNdPTR'', ''SCNi16'', ''SCNi32'', ''SCNi64'', ''SCNi8'',
    ''SCNiFAST16'', ''SCNiFAST32'', ''SCNiFAST64'', ''SCNiFAST8'', ''SCNiLEAST16'', ''SCNiLEAST32'',
    ''SCNiLEAST64'', ''SCNiLEAST8'', ''SCNiMAX'', ''SCNiPTR'', ''SCNo16'', ''SCNo32'', ''SCNo64'',
    ''SCNo8'', ''SCNoFAST16'', ''SCNoFAST32'', ''SCNoFAST64'', ''SCNoFAST8'', ''SCNoLEAST16'',
    ''SCNoLEAST32'', ''SCNoLEAST64'', ''SCNoLEAST8'', ''SCNoMAX'', ''SCNoPTR'', ''SCNu16'',
    ''SCNu32'', ''SCNu64'', ''SCNu8'', ''SCNuFAST16'', ''SCNuFAST32'', ''SCNuFAST64'',
    ''SCNuFAST8'', ''SCNuLEAST16'', ''SCNuLEAST32'', ''SCNuLEAST64'', ''SCNuLEAST8'', ''SCNuMAX'',
    ''SCNuPTR'', ''SCNx16'', ''SCNx32'', ''SCNx64'', ''SCNx8'', ''SCNxFAST16'', ''SCNxFAST32'',
    ''SCNxFAST64'', ''SCNxFAST8'', ''SCNxLEAST16'', ''SCNxLEAST32'', ''SCNxLEAST64'',
    ''SCNxLEAST8'', ''SCNxMAX'', ''SCNxPTR'', ''UINT16_C'', ''UINT16_MAX'', ''UINT32_C'',
    ''UINT32_MAX'', ''UINT64_C'', ''UINT64_MAX'', ''UINT8_C'', ''UINT8_MAX'', ''UINTMAX_MAX'',
    ''UINTPTR_MAX'', ''UINT_FAST16_MAX'', ''UINT_FAST32_MAX'', ''UINT_FAST64_MAX'',
    ''UINT_FAST8_MAX'', ''UINT_LEAST16_MAX'', ''UINT_LEAST32_MAX'', ''UINT_LEAST64_MAX'',
    ''UINT_LEAST8_MAX'']"

definition SPECIALS :: "string list" where
  "SPECIALS = [
    ''NULL'', ''bool'', ''char'', ''char16_t'', ''char32_t'', ''char8_t'', ''const'', ''constexpr'',
    ''double'', ''explicit'', ''false'', ''float'', ''inline'', ''int'', ''int16_t'', ''int32_t'',
    ''int64_t'', ''int8_t'', ''int_fast16_t'', ''int_fast32_t'', ''int_fast64_t'', ''int_fast8_t'',
    ''int_least16_t'', ''int_least32_t'', ''int_least64_t'', ''int_least8_t'', ''intmax_t'',
    ''intptr_t'', ''long'', ''max_align_t'', ''mutable'', ''namespace'', ''nullptr'', ''ptrdiff_t'',
    ''restrict'', ''short'', ''signed'', ''size_t'', ''ssize_t'', ''static'', ''true'',
    ''uint16_t'', ''uint32_t'', ''uint64_t'', ''uint8_t'', ''uint_fast16_t'', ''uint_fast32_t'',
    ''uint_fast64_t'', ''uint_fast8_t'', ''uint_least16_t'', ''uint_least32_t'', ''uint_least64_t'',
    ''uint_least8_t'', ''uintmax_t'', ''uintptr_t'', ''unsigned'', ''wchar_t'']"

definition is_predefined_macros :: "string \<Rightarrow> bool" where
  "is_predefined_macros mac \<longleftrightarrow> binary_search PREDEFINED_MACROS mac \<noteq> None"

definition is_specials :: "string \<Rightarrow> bool" where
  "is_specials mac \<longleftrightarrow> binary_search SPECIALS mac \<noteq> None"

lemma sorted_wrt_less_Cons2:
  "sorted_wrt (<) (x # y # zs) \<longleftrightarrow> (x::'a::linorder) < y \<and> sorted_wrt (<) (y # zs)"
  by (auto dest: less_trans)

lemma PREDEFINED_MACROS_sorted: "sorted_wrt (<) PREDEFINED_MACROS"
  unfolding PREDEFINED_MACROS_def sorted_wrt_less_Cons2
  by code_simp

lemma SPECIALS_sorted: "sorted_wrt (<) SPECIALS"
  unfolding SPECIALS_def sorted_wrt_less_Cons2
  by code_simp

lemma predefined_mem: "is_predefined_macros mac \<longleftrightarrow> mac \<in> set PREDEFINED_MACROS"
  by (simp only: is_predefined_macros_def binary_search_mem PREDEFINED_MACROS_sorted)

lemma specials_mem: "is_specials mac \<longleftrightarrow> mac \<in> set SPECIALS"
  by (simp only: is_specials_def binary_search_mem SPECIALS_sorted)

text \<open>
  The tables are sorted, as the search needs it, so both predicates are membership in
  their table.
\<close>

theorem names_found:
  "(is_predefined_macros mac \<longleftrightarrow> mac \<in> set PREDEFINED_MACROS) \<and>
   (is_specials mac \<longleftrightarrow> mac \<in> set SPECIALS)"
  by (simp only: predefined_mem specials_mem simp_thms)

declare is_predefined_macros_def [rust_simps] is_specials_def [rust_simps] binary_search_def [rust_simps]
  halving_loop.simps [rust_simps]

end
