(* ===== verification/Preproc_Walk.thy ===== *)
theory Preproc_Walk
  imports Include_Graph C_Names
begin

text \<open>
  The rest of \<^verbatim>\<open>preproc.rs\<close>: \<open>preprocess_with_parser\<close> walks the tree the preprocessor grammar gave
  for a file and collects its macros and its includes. The tree is a value here: what the walk reads
  of a node is its kind, its span and its children. \<^term>\<open>None\<close> is a panic.
\<close>

section \<open>The tree\<close>

text \<open>The kinds, \<^verbatim>\<open>languages/language_preproc.rs\<close>: the ids of the symbols in \<^verbatim>\<open>parser.c\<close>.\<close>

definition Preproc_Identifier :: nat where "Preproc_Identifier = 1"
definition Preproc_PreprocInclude :: nat where "Preproc_PreprocInclude = 24"
definition Preproc_Define :: nat where "Preproc_Define = 25"
definition Preproc_Undef :: nat where "Preproc_Undef = 29"
definition Preproc_StringLiteral :: nat where "Preproc_StringLiteral = 31"

lemmas kind_ids = Preproc_Identifier_def Preproc_PreprocInclude_def Preproc_Define_def
  Preproc_Undef_def Preproc_StringLiteral_def

datatype syntax_node =
  Syntax_Node (kind_id: nat) (start_byte: nat) (end_byte: nat) (children: "syntax_node list")

text \<open>
  \<^verbatim>\<open>cursor.reset(node); cursor.goto_first_child(); cursor.node()\<close>: without a child the cursor
  stays on the node.
\<close>

definition first_child :: "syntax_node \<Rightarrow> syntax_node" where
  "first_child node = (case children node of [] \<Rightarrow> node | c # _ \<Rightarrow> c)"

text \<open>\<open>Node::utf8_text\<close>: \<^verbatim>\<open>get\<close>, so a span outside the buffer is no panic.\<close>

definition utf8_text :: "syntax_node \<Rightarrow> bytes \<Rightarrow> string option" where
  "utf8_text node data = Option.bind (slice data (start_byte node) (end_byte node)) from_utf8"

section \<open>Directives\<close>

datatype MacroEvent = Define string | Undef string

definition blank :: "char \<Rightarrow> bool" where
  "blank c \<longleftrightarrow> c = CHR '' '' \<or> c = CHR 0x09"

definition strip_include_quotes :: "bytes \<Rightarrow> nat \<Rightarrow> nat \<Rightarrow> string option option" where
  "strip_include_quotes code start stop =
     (if stop < start + 2 then Some None
      else do {
        inner \<leftarrow> slice code (start + 1) (stop - 1);
        case position (\<lambda>c. \<not> blank c) inner of
          None \<Rightarrow> Some None
        | Some lo \<Rightarrow>
            (case rposition (\<lambda>c. \<not> blank c) inner of
               None \<Rightarrow> Some None
             | Some hi \<Rightarrow> do {
                 name \<leftarrow> slice inner lo (hi + 1);
                 Some (from_utf8 name)
               })
      })"

definition classify_preproc_node ::
  "bytes \<Rightarrow> syntax_node \<Rightarrow> string set \<times> (nat \<times> MacroEvent) list \<Rightarrow>
    (string set \<times> (nat \<times> MacroEvent) list) option" where
  "classify_preproc_node code node = (\<lambda>(includes, macro_events).
     let id = kind_id node in
     if id = Preproc_Define \<or> id = Preproc_Undef then
       (let identifier = first_child node in
        if kind_id identifier = Preproc_Identifier then
          (case utf8_text identifier code of
             None \<Rightarrow> Some (includes, macro_events)
           | Some macro_text \<Rightarrow>
               if \<not> is_specials macro_text then
                 (let event = (if id = Preproc_Undef then Undef macro_text else Define macro_text)
                  in Some (includes, macro_events @ [(start_byte identifier, event)]))
               else Some (includes, macro_events))
        else Some (includes, macro_events))
     else if id = Preproc_PreprocInclude then
       (let file = first_child node in
        if kind_id file = Preproc_StringLiteral then do {
          r \<leftarrow> strip_include_quotes code (start_byte file) (end_byte file);
          Some (case r of None \<Rightarrow> includes | Some incl \<Rightarrow> insert incl includes, macro_events)
        } else Some (includes, macro_events))
     else Some (includes, macro_events))"

text \<open>The loop over the stack; the top is the head of the list, so the children are pushed reversed.\<close>

function (sequential) preproc_walk ::
  "bytes \<Rightarrow> syntax_node list \<Rightarrow> string set \<times> (nat \<times> MacroEvent) list \<Rightarrow>
    (string set \<times> (nat \<times> MacroEvent) list) option" where
  "preproc_walk code [] s = Some s"
| "preproc_walk code (node # stack) s = do {
     s \<leftarrow> classify_preproc_node code node s;
     preproc_walk code (rev (children node) @ stack) s
   }"
  by pat_completeness auto

lemma size_children: "sum_list (map size (children n)) < size n"
proof (cases n)
  case (Syntax_Node k a b cs)
  have "sum_list (map size cs) \<le> size_list size cs" by (induction cs) auto
  then show ?thesis by (simp add: Syntax_Node)
qed

termination preproc_walk
  by (relation "measure (\<lambda>(code, stack, s). sum_list (map size stack))")
     (use size_children in \<open>auto simp: rev_map[symmetric] sum_list_rev\<close>)

definition apply_macro_events :: "(nat \<times> MacroEvent) list \<Rightarrow> string set \<Rightarrow> string set" where
  "apply_macro_events macro_events ms =
     foldl (\<lambda>ms (_, event). case event of Define name \<Rightarrow> insert name ms | Undef name \<Rightarrow> ms - {name}) ms
       (sort_key fst macro_events)"

definition preprocess_with_parser ::
  "syntax_node \<Rightarrow> bytes \<Rightarrow> path \<Rightarrow> preproc_files \<Rightarrow> preproc_files option" where
  "preprocess_with_parser root code path files = do {
     (includes, macro_events) \<leftarrow> preproc_walk code [root] ({}, []);
     Some (files(path \<mapsto> \<lparr> direct_includes = includes, indirect_includes = {},
       macros = apply_macro_events macro_events {} \<rparr>))
   }"

section \<open>The name of an include\<close>

definition trim_blank :: "string \<Rightarrow> string" where
  "trim_blank s = rev (dropWhile blank (rev (dropWhile blank s)))"

lemma trim_blank_Nil: "trim_blank s = [] \<longleftrightarrow> (\<forall>c\<in>set s. blank c)"
proof -
  have "trim_blank s = [] \<longleftrightarrow> (\<forall>c\<in>set (dropWhile blank s). blank c)"
    by (simp add: trim_blank_def)
  also have "\<dots> \<longleftrightarrow> dropWhile blank s = []"
    using hd_dropWhile[of blank s]
    by (cases "dropWhile blank s") (auto simp del: dropWhile_eq_Nil_conv)
  finally show ?thesis by (simp only: dropWhile_eq_Nil_conv)
qed

lemma trim_blank_span:
  assumes "\<exists>c\<in>set s. \<not> blank c"
  defines "n \<equiv> length (takeWhile blank s)" and "m \<equiv> length (takeWhile blank (rev s))"
  shows "n < length s - m" "m < length s" "span s n (length s - m) = trim_blank s"
proof -
  obtain c where c: "c \<in> set s" "\<not> blank c" using assms(1) by blast
  define t where "t = dropWhile blank s"
  have s: "s = takeWhile blank s @ t" by (simp add: t_def)
  have t: "t \<noteq> []" "\<not> blank (hd t)"
    using c hd_dropWhile[of blank s] by (auto simp: t_def)
  have "rev s = rev t @ rev (takeWhile blank s)" using s by (metis rev_append)
  moreover have "\<exists>x\<in>set (rev t). \<not> blank x" using t by (metis hd_in_set set_rev)
  ultimately have m: "takeWhile blank (rev s) = takeWhile blank (rev t)"
    by (metis takeWhile_append1)
  have "length (takeWhile blank (rev t)) < length (rev t)"
    using \<open>\<exists>x\<in>set (rev t). \<not> blank x\<close>
    by (metis length_takeWhile_le nat_less_le takeWhile_eq_all_conv takeWhile_eq_take take_all_iff order_refl)
  then have lt: "m < length t" by (simp add: m_def m)
  have ls: "length s = n + length t" unfolding n_def using s by (metis length_append)
  show "n < length s - m" "m < length s" using lt ls by auto
  have "drop n s = t" unfolding n_def t_def by (simp add: dropWhile_eq_drop)
  then have "span s n (length s - m) = take (length t - m) t"
    by (simp add: span_def ls)
  also have "\<dots> = rev (dropWhile blank (rev t))"
    by (simp add: m_def m dropWhile_eq_drop drop_rev)
  finally show "span s n (length s - m) = trim_blank s" by (simp add: trim_blank_def t_def)
qed

definition include_name :: "bytes \<Rightarrow> nat \<Rightarrow> nat \<Rightarrow> string option" where
  "include_name code start stop =
     (let s = trim_blank (span code (start + 1) (stop - 1)) in if s = [] then None else from_utf8 s)"

lemma strip_include_quotes_eq:
  assumes "stop \<le> length code"
  shows "strip_include_quotes code start stop = Some (include_name code start stop)"
proof (cases "stop < start + 2")
  case True
  then show ?thesis by (simp add: strip_include_quotes_def include_name_def span_def trim_blank_def)
next
  case False
  define s where "s = span code (Suc start) (stop - Suc 0)"
  have s: "slice code (Suc start) (stop - Suc 0) = Some s"
    using False assms by (simp add: s_def)
  show ?thesis
  proof (cases "\<exists>c\<in>set s. \<not> blank c")
    case True
    then have "rposition (\<lambda>c. \<not> blank c) s = Some (length s - 1 - length (takeWhile blank (rev s)))"
      by (simp add: rposition_def position_split)
    moreover note trim_blank_span[OF True]
    moreover have "trim_blank s \<noteq> []" using True by (simp add: trim_blank_Nil)
    ultimately show ?thesis
      using False True s
      by (simp add: strip_include_quotes_def include_name_def position_split Suc_diff_Suc flip: s_def)
  next
    case none: False
    then show ?thesis
      using False s
      by (simp add: strip_include_quotes_def include_name_def position_split trim_blank_Nil flip: s_def)
  qed
qed

text \<open>
  \<open>strip_include_quotes\<close> does not panic on a span of the buffer, however short or
  reversed it is, and on a quoted literal it returns what stands between the quotes without the
  blanks around it, when that is not empty and is UTF-8.
\<close>

theorem strip_include_quotes_trims:
  assumes "stop \<le> length code"
  shows "strip_include_quotes code start stop =
      Some (let s = trim_blank (span code (start + 1) (stop - 1)) in
            if stop < start + 2 \<or> s = [] then None else from_utf8 s)"
  using strip_include_quotes_eq[OF assms, of start]
  by (auto simp: include_name_def Let_def span_def trim_blank_def)

theorem strip_include_quotes_trims_witness:
  "strip_include_quotes (CHR 0x22 # '' a.h '' @ [CHR 0x22]) 0 7 =
      Some (let s = trim_blank (span (CHR 0x22 # '' a.h '' @ [CHR 0x22]) (0 + 1) (7 - 1)) in
            if (7::nat) < 0 + 2 \<or> s = [] then None else from_utf8 s)"
  by (rule strip_include_quotes_trims) simp

section \<open>What the walk collects\<close>

fun subnodes :: "syntax_node \<Rightarrow> syntax_node set" where
  "subnodes (Syntax_Node k a b cs) = insert (Syntax_Node k a b cs) (\<Union>c\<in>set cs. subnodes c)"

text \<open>The event and the include of a node, and what is in a tree.\<close>

definition directive_of :: "bytes \<Rightarrow> syntax_node \<Rightarrow> (nat \<times> MacroEvent) option" where
  "directive_of code node =
     (let name = first_child node in
      if (kind_id node = Preproc_Define \<or> kind_id node = Preproc_Undef) \<and> kind_id name = Preproc_Identifier then
        (case utf8_text name code of
           None \<Rightarrow> None
         | Some s \<Rightarrow> if is_specials s then None
             else Some (start_byte name, if kind_id node = Preproc_Undef then Undef s else Define s))
      else None)"

definition include_of :: "bytes \<Rightarrow> syntax_node \<Rightarrow> string option" where
  "include_of code node =
     (let file = first_child node in
      if kind_id node = Preproc_PreprocInclude \<and> kind_id file = Preproc_StringLiteral
      then include_name code (start_byte file) (end_byte file) else None)"

definition directives :: "bytes \<Rightarrow> syntax_node \<Rightarrow> (nat \<times> MacroEvent) set" where
  "directives code root = {e. \<exists>n\<in>subnodes root. directive_of code n = Some e}"

definition quoted_includes :: "bytes \<Rightarrow> syntax_node \<Rightarrow> string set" where
  "quoted_includes code root = {s. \<exists>n\<in>subnodes root. include_of code n = Some s}"

text \<open>The spans of the tree are spans of the buffer.\<close>

definition tree_of :: "bytes \<Rightarrow> syntax_node \<Rightarrow> bool" where
  "tree_of code root \<longleftrightarrow> (\<forall>n\<in>subnodes root. end_byte n \<le> length code)"

lemma self_subnodes: "n \<in> subnodes n"
  by (cases n) simp

lemma subnodes_children: "subnodes n = insert n (\<Union>c\<in>set (children n). subnodes c)"
  by (cases n) simp

lemma first_child_subnodes: "first_child n \<in> subnodes n"
  by (cases n) (auto simp: first_child_def self_subnodes split: list.split)

lemma classify_eq:
  assumes "end_byte (first_child node) \<le> length code"
  shows "classify_preproc_node code node (incs, evs) =
    Some (incs \<union> set_option (include_of code node), evs @ (case directive_of code node of None \<Rightarrow> [] | Some e \<Rightarrow> [e]))"
  using strip_include_quotes_eq[OF assms]
  by (auto simp: classify_preproc_node_def include_of_def directive_of_def Let_def kind_ids
      split: option.splits)

lemma directives_children:
  "directives code n = set_option (directive_of code n) \<union> (\<Union>c\<in>set (children n). directives code c)"
  by (auto simp: directives_def subnodes_children[of n])

lemma quoted_includes_children:
  "quoted_includes code n = set_option (include_of code n) \<union> (\<Union>c\<in>set (children n). quoted_includes code c)"
  by (auto simp: quoted_includes_def subnodes_children[of n])

lemma tree_of_children:
  "tree_of code n \<longleftrightarrow> end_byte n \<le> length code \<and> (\<forall>c\<in>set (children n). tree_of code c)"
  by (auto simp: tree_of_def subnodes_children[of n])

lemma preproc_walk_collects:
  "(\<forall>n\<in>set stack. tree_of code n) \<Longrightarrow>
    \<exists>evs'. preproc_walk code stack (incs, evs) = Some (incs \<union> (\<Union>n\<in>set stack. quoted_includes code n), evs @ evs') \<and>
      set evs' = (\<Union>n\<in>set stack. directives code n)"
proof (induction code stack "(incs, evs)" arbitrary: incs evs rule: preproc_walk.induct)
  case (2 code n stack)
  have n: "end_byte (first_child n) \<le> length code" "\<forall>c\<in>set (children n). tree_of code c"
    using 2(2) first_child_subnodes[of n] tree_of_children[of code n] by (auto simp: tree_of_def[of code n])
  let ?incs = "incs \<union> set_option (include_of code n)"
  let ?evs = "evs @ (case directive_of code n of None \<Rightarrow> [] | Some e \<Rightarrow> [e])"
  have c: "classify_preproc_node code n (incs, evs) = Some (?incs, ?evs)" by (rule classify_eq[OF n(1)])
  have "\<forall>n\<in>set (rev (children n) @ stack). tree_of code n" using n(2) 2(2) by auto
  from 2(1)[OF c this] obtain evs' where e:
      "preproc_walk code (rev (children n) @ stack) (?incs, ?evs) =
        Some (?incs \<union> (\<Union>n\<in>set (rev (children n) @ stack). quoted_includes code n), ?evs @ evs')"
      "set evs' = (\<Union>n\<in>set (rev (children n) @ stack). directives code n)"
    by blast
  show ?case
    by (rule exI[of _ "(case directive_of code n of None \<Rightarrow> [] | Some e \<Rightarrow> [e]) @ evs'"])
       (auto simp: c e directives_children[of code n] quoted_includes_children[of code n]
         simp del: preproc_walk.simps(1) split: option.splits)
qed simp

section \<open>The last directive wins\<close>

primrec event_name :: "MacroEvent \<Rightarrow> string" where
  "event_name (Define s) = s"
| "event_name (Undef s) = s"

text \<open>The macros that are defined at the end of a file: the last directive that names them is a definition.\<close>

definition last_defined :: "(nat \<times> MacroEvent) set \<Rightarrow> string set" where
  "last_defined evs = {s. \<exists>i. (i, Define s) \<in> evs \<and> (\<forall>(j, e)\<in>evs. event_name e = s \<longrightarrow> j \<le> i)}"

definition one_per_offset :: "(nat \<times> MacroEvent) set \<Rightarrow> bool" where
  "one_per_offset evs \<longleftrightarrow> (\<forall>(i, e)\<in>evs. \<forall>(j, f)\<in>evs. i = j \<longrightarrow> e = f)"

definition apply_event :: "string set \<Rightarrow> nat \<times> MacroEvent \<Rightarrow> string set" where
  "apply_event = (\<lambda>ms (_, event). case event of Define name \<Rightarrow> insert name ms | Undef name \<Rightarrow> ms - {name})"

lemma one_per_offset_mono: "\<lbrakk> one_per_offset evs; evs' \<subseteq> evs \<rbrakk> \<Longrightarrow> one_per_offset evs'"
  unfolding one_per_offset_def by blast

lemma apply_event_simps [simp]:
  "apply_event ms (i, Define s) = insert s ms" "apply_event ms (i, Undef s) = ms - {s}"
  by (simp_all add: apply_event_def)

lemma replay_last_defined:
  "\<lbrakk> sorted (map fst evs); one_per_offset (set evs) \<rbrakk> \<Longrightarrow>
    foldl apply_event {} evs = last_defined (set evs)"
proof (induction evs rule: rev_induct)
  case (snoc x evs)
  obtain i e where x: "x = (i, e)" by force
  have le: "\<forall>(j, f)\<in>set evs. j \<le> i" using snoc.prems(1) by (auto simp: x sorted_append)
  have u: "\<forall>(j, f)\<in>set evs. j = i \<longrightarrow> f = e" using snoc.prems(2) by (auto simp: x one_per_offset_def)
  have ih: "foldl apply_event {} evs = last_defined (set evs)"
    using snoc.IH snoc.prems one_per_offset_mono[of "set (evs @ [x])" "set evs"]
    by (auto simp: sorted_append)
  have other: "s \<in> last_defined (insert x (set evs)) \<longleftrightarrow> s \<in> last_defined (set evs)" if "s \<noteq> event_name e" for s
    using that by (auto simp: last_defined_def x)
  have same: "event_name e \<in> last_defined (insert x (set evs)) \<longleftrightarrow> e = Define (event_name e)"
    using le u by (cases e) (fastforce simp: last_defined_def x)+
  show ?case
  proof (rule set_eqI)
    fix s show "s \<in> foldl apply_event {} (evs @ [x]) \<longleftrightarrow> s \<in> last_defined (set (evs @ [x]))"
      using other[of s] same by (cases "s = event_name e"; cases e) (simp_all add: x ih)
  qed
qed (simp add: last_defined_def)

lemma apply_macro_events_eq:
  "one_per_offset (set evs) \<Longrightarrow> apply_macro_events evs {} = last_defined (set evs)"
  using replay_last_defined[of "sort_key fst evs"]
  by (simp add: apply_macro_events_def flip: apply_event_def)

lemma preprocess_with_parser_eq:
  assumes "tree_of code root" "one_per_offset (directives code root)"
  shows "preprocess_with_parser root code p files =
    Some (files(p \<mapsto> \<lparr> direct_includes = quoted_includes code root, indirect_includes = {},
      macros = last_defined (directives code root) \<rparr>))"
proof -
  obtain evs where "preproc_walk code [root] ({}, []) = Some (quoted_includes code root, evs)"
      "set evs = directives code root"
    using preproc_walk_collects[of "[root]" code "{}" "[]"] assms(1) by auto
  then show ?thesis
    using assms(2) by (simp add: preprocess_with_parser_def apply_macro_events_eq del: preproc_walk.simps)
qed

text \<open>
  Property C24. On a tree whose spans are spans of the source, and in which no two directives name
  a macro at the same place, \<open>preprocess_with_parser\<close> ends without a panic and
  records exactly the quoted includes of the tree and exactly the macros whose last directive in the
  order of the source is a definition, whatever the shape of the tree, though the walk visits the
  nodes from the last to the first.
\<close>

theorem preprocess_collects:
  assumes "tree_of code root" "one_per_offset (directives code root)"
  shows "preprocess_with_parser root code p files =
    Some (files(p \<mapsto> \<lparr> direct_includes = quoted_includes code root, indirect_includes = {},
      macros = last_defined (directives code root) \<rparr>))"
  using assms by (rule preprocess_with_parser_eq)

text \<open>Two directives for the same name: the second one decides.\<close>

definition undef_code :: bytes where
  "undef_code = ''#define A #undef A''"

definition undef_tree :: syntax_node where
  "undef_tree = Syntax_Node 22 0 18 [Syntax_Node 25 0 9 [Syntax_Node 1 8 9 []],
     Syntax_Node 29 10 18 [Syntax_Node 1 17 18 []]]"

theorem preprocess_collects_witness:
  "preprocess_with_parser undef_tree undef_code [] Map.empty =
    Some ([[] \<mapsto> \<lparr> direct_includes = quoted_includes undef_code undef_tree, indirect_includes = {},
      macros = last_defined (directives undef_code undef_tree) \<rparr>])"
proof -
  have nodes: "directives undef_code undef_tree \<subseteq> {(8, Define ''A''), (17, Undef ''A'')}"
    by (auto simp: directives_def undef_tree_def undef_code_def directive_of_def first_child_def kind_ids
        utf8_text_def slice_def from_utf8_def Let_def split: option.splits if_splits)
  have "one_per_offset {(8, Define ''A''), (17, Undef ''A'')}" by (simp add: one_per_offset_def)
  then have "one_per_offset (directives undef_code undef_tree)" using nodes by (rule one_per_offset_mono)
  then show ?thesis
    by (rule preprocess_collects[rotated]) (simp add: tree_of_def undef_tree_def undef_code_def)
qed

end
