(* ===== verification/C_Macro.thy ===== *)
theory C_Macro
  imports Rust_Bytes
begin

text \<open>
  \<^verbatim>\<open>big-code-analysis-ast/src/c_macro.rs\<close>: the pass over a C or C++ source that overwrites
  the names of macros with dollar signs before the source is parsed. It is a byte lexer with an
  index into the source, a lexical state, and the accumulator \<open>MaskState\<close>. The functions that
  change the accumulator or the state through a \<^verbatim>\<open>&mut\<close> return them; \<^term>\<open>None\<close> is a
  panic, or for the driver loop not returning.
\<close>

section \<open>Characters\<close>

definition CPP_RAW_STRING_DELIM_MAX :: nat where
  "CPP_RAW_STRING_DELIM_MAX = 16"

definition is_identifier_part :: "char \<Rightarrow> bool" where
  "is_identifier_part c \<longleftrightarrow>
     is_ascii_uppercase c \<or> is_ascii_lowercase c \<or> is_ascii_digit c \<or> c = CHR ''_''"

definition is_identifier_starter :: "char \<Rightarrow> bool" where
  "is_identifier_starter c \<longleftrightarrow> is_ascii_uppercase c \<or> is_ascii_lowercase c \<or> c = CHR ''_''"

definition is_raw_string_prefix :: "bytes \<Rightarrow> bool" where
  "is_raw_string_prefix ident \<longleftrightarrow>
     ident = ''R'' \<or> ident = ''uR'' \<or> ident = ''UR'' \<or> ident = ''LR'' \<or> ident = ''u8R''"

section \<open>Numbers\<close>

definition is_digit_separator :: "bytes \<Rightarrow> nat \<Rightarrow> bool \<Rightarrow> bool option" where
  "is_digit_separator code i in_number =
     (if in_number \<and> i > 0 then do {
        j \<leftarrow> usize_sub i 1;
        a \<leftarrow> byte_at code j;
        if is_ascii_hexdigit a \<and> i + 1 < length code then do {
          b \<leftarrow> byte_at code (i + 1);
          Some (is_ascii_hexdigit b)
        } else Some False
      } else Some False)"

text \<open>The first component is the result, the second the new \<^verbatim>\<open>*in_number\<close>.\<close>

definition track_numeric_run :: "bytes \<Rightarrow> nat \<Rightarrow> nat \<Rightarrow> bool \<Rightarrow> (bool \<times> bool) option" where
  "track_numeric_run code i k_start in_number = do {
     c \<leftarrow> byte_at code i;
     sep \<leftarrow> (if c = CHR 0x27 then is_digit_separator code i in_number else Some False);
     if sep then Some (True, in_number)
     else if in_number then Some (False, is_identifier_part c \<or> c = CHR ''.'')
     else if k_start = 0 \<and> is_ascii_digit c then Some (False, True)
     else Some (False, in_number)
   }"

section \<open>The state\<close>

datatype LexState =
    Lex_Normal
  | Lex_String
  | Lex_Char
  | Lex_LineComment
  | Lex_BlockComment
  | Lex_RawString nat nat  \<comment> \<open>\<open>delim_start\<close> and \<open>delim_len\<close>\<close>

record MaskState =
  k_start :: nat
  code_start :: nat
  in_number :: bool
  new_code :: bytes

text \<open>
  The oracle \<open>is_macro\<close>: the names of the preprocessor results, and the generated table
  of predefined names. Both only answer membership.
\<close>

definition is_macro :: "(string \<Rightarrow> bool) \<Rightarrow> string set \<Rightarrow> string \<Rightarrow> bool" where
  "is_macro is_predefined_macros macros mac \<longleftrightarrow> mac \<in> macros \<or> is_predefined_macros mac"

text \<open>
  The end of an identifier run at \<open>i\<close>, as \<open>step_normal\<close> and the code behind the loop of
  \<open>replace\<close> treat it once the keyword is known to be one: copy what precedes it, and a dollar for
  each of its bytes.
\<close>

definition mask_run :: "bytes \<Rightarrow> nat \<Rightarrow> nat \<Rightarrow> MaskState \<Rightarrow> MaskState option" where
  "mask_run code start i ms = do {
     before \<leftarrow> slice code (code_start ms) start;
     n \<leftarrow> usize_sub i start;
     Some (ms\<lparr> new_code := new_code ms @ before @ replicate n (CHR ''$''), code_start := i \<rparr>)
   }"

section \<open>The steps\<close>

text \<open>The loop of \<open>enter_raw_string\<close> over \<open>delim_end\<close>; \<open>None\<close> in the result is the bail-out.\<close>

function (sequential) raw_delim_loop :: "bytes \<Rightarrow> nat \<Rightarrow> nat \<Rightarrow> nat option option" where
  "raw_delim_loop code delim_start delim_end =
     (if delim_end < length code then do {
        c \<leftarrow> byte_at code delim_end;
        if c \<noteq> CHR ''('' then do {
          n \<leftarrow> usize_sub delim_end delim_start;
          if n \<ge> CPP_RAW_STRING_DELIM_MAX then Some None
          else raw_delim_loop code delim_start (delim_end + 1)
        } else Some (Some delim_end)
      } else Some (Some delim_end))"
  by pat_completeness auto
termination by (relation "measure (\<lambda>(code, s, e). length code - e)") auto

declare raw_delim_loop.simps [simp del]

definition enter_raw_string :: "bytes \<Rightarrow> nat \<Rightarrow> (nat \<times> LexState) option" where
  "enter_raw_string code i = do {
     r \<leftarrow> raw_delim_loop code (i + 1) (i + 1);
     case r of
       None \<Rightarrow> Some (1, Lex_String)
     | Some delim_end \<Rightarrow>
         if delim_end \<ge> length code then Some (1, Lex_String)
         else do {
           n \<leftarrow> usize_sub delim_end (i + 1);
           m \<leftarrow> usize_sub delim_end i;
           Some (m + 1, Lex_RawString (i + 1) n)
         }
   }"

text \<open>
  \<open>step_normal\<close>, in the order of the source: the number, the end of an identifier run, then what
  the byte opens. The last part is a definition of its own.
\<close>

definition step_open :: "bytes \<Rightarrow> nat \<Rightarrow> char \<Rightarrow> MaskState \<Rightarrow> (nat \<times> MaskState \<times> LexState) option" where
  "step_open code i c ms = do {
     ahead \<leftarrow> (if c = CHR ''/'' \<and> i + 1 < length code
              then do { d \<leftarrow> byte_at code (i + 1); Some (Some d) } else Some None);
     if ahead = Some (CHR ''/'') then Some (2, ms, Lex_LineComment)
     else if ahead = Some (CHR ''*'') then Some (2, ms, Lex_BlockComment)
     else if c = CHR 0x22 then Some (1, ms, Lex_String)
     else if c = CHR 0x27 then Some (1, ms, Lex_Char)
     else if k_start ms = 0 \<and> is_identifier_starter c
       then Some (1, ms\<lparr> k_start := i + 1 \<rparr>, Lex_Normal)
     else Some (1, ms, Lex_Normal)
   }"

definition step_normal ::
  "(string \<Rightarrow> bool) \<Rightarrow> string set \<Rightarrow> bytes \<Rightarrow> nat \<Rightarrow> MaskState \<Rightarrow> (nat \<times> MaskState \<times> LexState) option" where
  "step_normal predefined macros code i ms = do {
     c \<leftarrow> byte_at code i;
     (sep, num) \<leftarrow> track_numeric_run code i (k_start ms) (in_number ms);
     let ms = ms\<lparr> in_number := num \<rparr>;
     if sep then Some (1, ms, Lex_Normal)
     else if k_start ms \<noteq> 0 \<and> \<not> is_identifier_part c then do {
       start \<leftarrow> usize_sub (k_start ms) 1;
       let ms = ms\<lparr> k_start := 0 \<rparr>;
       run \<leftarrow> slice code start i;
       keyword \<leftarrow> from_utf8 run;
       if c = CHR 0x22 \<and> is_raw_string_prefix run then do {
         (n, state) \<leftarrow> enter_raw_string code i;
         Some (n, ms, state)
       }
       else if is_macro predefined macros keyword then do {
         ms \<leftarrow> mask_run code start i ms;
         step_open code i c ms
       }
       else step_open code i c ms
     }
     else step_open code i c ms
   }"

definition step_quoted :: "bytes \<Rightarrow> nat \<Rightarrow> char \<Rightarrow> LexState \<Rightarrow> (nat \<times> LexState) option" where
  "step_quoted code i quote state = do {
     c \<leftarrow> byte_at code i;
     if c = CHR 0x5C \<and> i + 1 < length code then Some (2, state)
     else if c = quote then Some (1, Lex_Normal)
     else Some (1, state)
   }"

definition step_line_comment :: "bytes \<Rightarrow> nat \<Rightarrow> LexState \<Rightarrow> (nat \<times> LexState) option" where
  "step_line_comment code i state = do {
     c \<leftarrow> byte_at code i;
     continued \<leftarrow> (if c = CHR 0x5C \<and> i + 1 < length code
                   then do { d \<leftarrow> byte_at code (i + 1); Some (d = CHR 0x0A) } else Some False);
     if continued then Some (2, state)
     else if c = CHR 0x0A then Some (1, Lex_Normal)
     else Some (1, state)
   }"

definition step_block_comment :: "bytes \<Rightarrow> nat \<Rightarrow> LexState \<Rightarrow> (nat \<times> LexState) option" where
  "step_block_comment code i state = do {
     c \<leftarrow> byte_at code i;
     closed \<leftarrow> (if c = CHR ''*'' \<and> i + 1 < length code
                then do { d \<leftarrow> byte_at code (i + 1); Some (d = CHR ''/'') } else Some False);
     if closed then Some (2, Lex_Normal) else Some (1, state)
   }"

text \<open>
  The comparison of the closing delimiter uses \<^verbatim>\<open>get\<close>, which returns an option: two
  ranges out of bounds would be equal. \<^const>\<open>slice\<close> and \<^const>\<open>byte_at\<close> are this
  \<^verbatim>\<open>get\<close> when they are not bound.
\<close>

definition step_raw_string :: "bytes \<Rightarrow> nat \<Rightarrow> nat \<Rightarrow> nat \<Rightarrow> LexState \<Rightarrow> (nat \<times> LexState) option" where
  "step_raw_string code i delim_start delim_len state = do {
     c \<leftarrow> byte_at code i;
     if c = CHR '')'' then
       (let close_quote = i + 1 + delim_len in
        if byte_at code close_quote = Some (CHR 0x22) \<and>
           slice code (i + 1) close_quote = slice code delim_start (delim_start + delim_len)
        then do { n \<leftarrow> usize_sub close_quote i; Some (n + 1, Lex_Normal) }
        else Some (1, state))
     else Some (1, state)
   }"

section \<open>The driver\<close>

definition replace_step ::
  "(string \<Rightarrow> bool) \<Rightarrow> string set \<Rightarrow> bytes \<Rightarrow> nat \<Rightarrow> MaskState \<Rightarrow> LexState \<Rightarrow>
    (nat \<times> MaskState \<times> LexState) option" where
  "replace_step predefined macros code i ms state =
     (let keep = \<lambda>r. do { (n, state) \<leftarrow> r; Some (n, ms, state) } in
      case state of
        Lex_Normal \<Rightarrow> step_normal predefined macros code i ms
      | Lex_String \<Rightarrow> keep (step_quoted code i (CHR 0x22) state)
      | Lex_Char \<Rightarrow> keep (step_quoted code i (CHR 0x27) state)
      | Lex_LineComment \<Rightarrow> keep (step_line_comment code i state)
      | Lex_BlockComment \<Rightarrow> keep (step_block_comment code i state)
      | Lex_RawString ds dl \<Rightarrow> keep (step_raw_string code i ds dl state))"

partial_function (option) replace_loop ::
  "(string \<Rightarrow> bool) \<Rightarrow> string set \<Rightarrow> bytes \<Rightarrow> nat \<Rightarrow> MaskState \<Rightarrow> LexState \<Rightarrow>
    (MaskState \<times> LexState) option" where
  "replace_loop predefined macros code i ms state =
     (if i < length code then do {
        r \<leftarrow> replace_step predefined macros code i ms state;
        replace_loop predefined macros code (i + fst r) (fst (snd r)) (snd (snd r))
      } else Some (ms, state))"

definition replace_finish ::
  "(string \<Rightarrow> bool) \<Rightarrow> string set \<Rightarrow> bytes \<Rightarrow> MaskState \<Rightarrow> LexState \<Rightarrow> bytes option option" where
  "replace_finish predefined macros code ms state = do {
     ms \<leftarrow>
       (if k_start ms \<noteq> 0 \<and> state = Lex_Normal then do {
          start \<leftarrow> usize_sub (k_start ms) 1;
          run \<leftarrow> slice code start (length code);
          keyword \<leftarrow> from_utf8 run;
          if is_macro predefined macros keyword then mask_run code start (length code) ms
          else Some ms
        } else Some ms);
     if code_start ms = 0 then Some None
     else do {
       tail \<leftarrow> slice code (code_start ms) (length code);
       Some (Some (new_code ms @ tail))
     }
   }"

text \<open>\<open>replace\<close> of the source: the outer option is ours, the inner one its result.\<close>

definition replace :: "(string \<Rightarrow> bool) \<Rightarrow> string set \<Rightarrow> bytes \<Rightarrow> bytes option option" where
  "replace predefined macros code = do {
     (ms, state) \<leftarrow> replace_loop predefined macros code 0
       \<lparr> k_start = 0, code_start = 0, in_number = False, new_code = [] \<rparr> Lex_Normal;
     replace_finish predefined macros code ms state
   }"

declare replace_loop.simps [code]
declare CPP_RAW_STRING_DELIM_MAX_def [rust_simps] is_identifier_part_def [rust_simps]
  is_identifier_starter_def [rust_simps] is_raw_string_prefix_def [rust_simps]
  is_digit_separator_def [rust_simps] track_numeric_run_def [rust_simps] is_macro_def [rust_simps]
  mask_run_def [rust_simps] raw_delim_loop.simps [rust_simps] enter_raw_string_def [rust_simps]
  step_open_def [rust_simps] step_normal_def [rust_simps] step_quoted_def [rust_simps]
  step_line_comment_def [rust_simps] step_block_comment_def [rust_simps]
  step_raw_string_def [rust_simps] replace_step_def [rust_simps] replace_loop.simps [rust_simps]
  replace_finish_def [rust_simps] replace_def [rust_simps]

end
