(* ===== verification/C_Macro_Lexer.thy ===== *)
theory C_Macro_Lexer
  imports C_Macro
begin

text \<open>
  The specification of \<open>replace\<close>: a lexer over lists, \<open>segments\<close>, that splits a
  source into the identifier runs that may be macro names and the bytes that are copied, without an
  index, a cursor or a buffer, and without the set of macros. The rest of the theory simulates
  \<open>replace\<close> by it, one round of the loop at a time: \<open>replace\<close> always returns, never panics, and masks
  the runs that are macros and nothing else.
\<close>

section \<open>The reference lexer\<close>

datatype segment = Ident string | Other char

datatype lex_context =
    In_Code "char option" string  \<comment> \<open>in a number: its previous byte; the identifier run so far\<close>
  | In_String
  | In_Char
  | In_Line
  | In_Block
  | In_Raw string  \<comment> \<open>the delimiter\<close>

definition separator :: "char option \<Rightarrow> char \<Rightarrow> string \<Rightarrow> bool" where
  "separator num c cs \<longleftrightarrow> c = CHR 0x27 \<and>
     (case num of None \<Rightarrow> False | Some a \<Rightarrow> is_ascii_hexdigit a) \<and>
     (case cs of [] \<Rightarrow> False | b # _ \<Rightarrow> is_ascii_hexdigit b)"

definition next_number :: "char option \<Rightarrow> string \<Rightarrow> char \<Rightarrow> char option" where
  "next_number num w c =
     (if (case num of None \<Rightarrow> w = [] \<and> is_ascii_digit c
                    | Some _ \<Rightarrow> is_identifier_part c \<or> c = CHR ''.'')
      then Some c else None)"

definition raw_opening :: "string \<Rightarrow> string option" where
  "raw_opening cs = (let d = takeWhile (\<lambda>c. c \<noteq> CHR ''('') cs in
     if length d < length cs \<and> length d \<le> CPP_RAW_STRING_DELIM_MAX then Some d else None)"

function (sequential) segments :: "lex_context \<Rightarrow> string \<Rightarrow> segment list" where
  "segments (In_Code num w) [] = (if w = [] then [] else [Ident w])"
| "segments (In_Code num w) (c # cs) =
     (if separator num c cs then
        (if w = [] then Other c # segments (In_Code (Some c) []) cs
         else segments (In_Code (Some c) (w @ [c])) cs)
      else if w \<noteq> [] then
        (if is_identifier_part c then segments (In_Code (next_number num w c) (w @ [c])) cs
         else if c = CHR 0x22 \<and> is_raw_string_prefix w then
           map Other w @ Other c #
           (case raw_opening cs of
              None \<Rightarrow> segments In_String cs
            | Some d \<Rightarrow> map Other (d @ ''('') @ segments (In_Raw d) (drop (Suc (length d)) cs))
         else Ident w # segments (In_Code num []) (c # cs))
      else if c = CHR ''/'' \<and> take 1 cs = ''/'' then
        Other c # Other (hd cs) # segments In_Line (tl cs)
      else if c = CHR ''/'' \<and> take 1 cs = ''*'' then
        Other c # Other (hd cs) # segments In_Block (tl cs)
      else if c = CHR 0x22 then Other c # segments In_String cs
      else if c = CHR 0x27 then Other c # segments In_Char cs
      else if is_identifier_starter c then segments (In_Code (next_number num w c) [c]) cs
      else Other c # segments (In_Code (next_number num w c) []) cs)"
| "segments ctx [] = []"
| "segments In_String (c # cs) =
     (if c = CHR 0x5C \<and> cs \<noteq> [] then Other c # Other (hd cs) # segments In_String (tl cs)
      else Other c # segments (if c = CHR 0x22 then In_Code None [] else In_String) cs)"
| "segments In_Char (c # cs) =
     (if c = CHR 0x5C \<and> cs \<noteq> [] then Other c # Other (hd cs) # segments In_Char (tl cs)
      else Other c # segments (if c = CHR 0x27 then In_Code None [] else In_Char) cs)"
| "segments In_Line (c # cs) =
     (if c = CHR 0x5C \<and> take 1 cs = [CHR 0x0A] then Other c # Other (hd cs) # segments In_Line (tl cs)
      else Other c # segments (if c = CHR 0x0A then In_Code None [] else In_Line) cs)"
| "segments In_Block (c # cs) =
     (if c = CHR ''*'' \<and> take 1 cs = ''/''
      then Other c # Other (hd cs) # segments (In_Code None []) (tl cs)
      else Other c # segments In_Block cs)"
| "segments (In_Raw d) (c # cs) =
     (if c = CHR '')'' \<and> take (Suc (length d)) cs = d @ [CHR 0x22]
      then map Other (c # d @ [CHR 0x22]) @ segments (In_Code None []) (drop (Suc (length d)) cs)
      else Other c # segments (In_Raw d) cs)"
  by pat_completeness auto
termination
  by (relation "measure (\<lambda>(ctx, cs). 2 * length cs +
        (case ctx of In_Code _ w \<Rightarrow> if w = [] then 0 else 1 | _ \<Rightarrow> 0))")
     (auto split: list.splits)

declare segments.simps [simp del]

lemma take_1_eq: "take 1 cs = [x] \<longleftrightarrow> (\<exists>t. cs = x # t)"
  by (cases cs) auto

text \<open>The equation for code, by its cases.\<close>

lemma segments_separator:
  "separator num c cs \<Longrightarrow> segments (In_Code num w) (c # cs) =
     (if w = [] then [Other c] else []) @
     segments (In_Code (Some c) (if w = [] then [] else w @ [c])) cs"
  by (simp add: segments.simps(2))

lemma segments_part:
  "\<lbrakk> \<not> separator num c cs; w \<noteq> []; is_identifier_part c \<rbrakk> \<Longrightarrow>
    segments (In_Code num w) (c # cs) = segments (In_Code (next_number num w c) (w @ [c])) cs"
  by (simp add: segments.simps(2))

lemma segments_raw:
  "\<lbrakk> \<not> separator num c cs; w \<noteq> []; c = CHR 0x22; is_raw_string_prefix w \<rbrakk> \<Longrightarrow>
    segments (In_Code num w) (c # cs) = map Other w @ Other c #
      (case raw_opening cs of
         None \<Rightarrow> segments In_String cs
       | Some d \<Rightarrow> map Other (d @ ''('') @ segments (In_Raw d) (drop (Suc (length d)) cs))"
  by (subst segments.simps(2))
     (simp add: is_identifier_part_def ascii_defs Let_def)

lemma segments_run:
  "\<lbrakk> \<not> separator num c cs; w \<noteq> []; \<not> is_identifier_part c; \<not> (c = CHR 0x22 \<and> is_raw_string_prefix w) \<rbrakk> \<Longrightarrow>
    segments (In_Code num w) (c # cs) = Ident w # segments (In_Code num []) (c # cs)"
  by (subst segments.simps(2)) (auto simp del: segments.simps)

lemma segments_open:
  "\<not> separator num c cs \<Longrightarrow> segments (In_Code num []) (c # cs) =
     (if c = CHR ''/'' \<and> take 1 cs = ''/'' then Other c # Other (hd cs) # segments In_Line (tl cs)
      else if c = CHR ''/'' \<and> take 1 cs = ''*'' then Other c # Other (hd cs) # segments In_Block (tl cs)
      else if c = CHR 0x22 then Other c # segments In_String cs
      else if c = CHR 0x27 then Other c # segments In_Char cs
      else if is_identifier_starter c then segments (In_Code (next_number num [] c) [c]) cs
      else Other c # segments (In_Code (next_number num [] c) []) cs)"
  by (subst segments.simps(2)) simp

section \<open>Masking segments\<close>

primrec segment_text :: "segment \<Rightarrow> string" where
  "segment_text (Ident w) = w"
| "segment_text (Other c) = [c]"

primrec mask_segment :: "(string \<Rightarrow> bool) \<Rightarrow> segment \<Rightarrow> string" where
  "mask_segment mac (Ident w) = (if mac w then replicate (length w) (CHR ''$'') else w)"
| "mask_segment mac (Other c) = [c]"

definition text_of :: "segment list \<Rightarrow> string" where
  "text_of ss = concat (map segment_text ss)"

definition masked :: "(string \<Rightarrow> bool) \<Rightarrow> segment list \<Rightarrow> string" where
  "masked mac ss = concat (map (mask_segment mac) ss)"

definition some_macro :: "(string \<Rightarrow> bool) \<Rightarrow> segment list \<Rightarrow> bool" where
  "some_macro mac ss \<longleftrightarrow> (\<exists>w. Ident w \<in> set ss \<and> mac w)"

named_theorems segment_simps \<open>the three readings of a segment list, by its shape\<close>

lemma text_of_simps [segment_simps]:
  "text_of [] = []" "text_of (s # ss) = segment_text s @ text_of ss"
  "text_of (ss @ ts) = text_of ss @ text_of ts" "text_of (map Other w) = w"
  by (simp_all add: text_of_def) (induction w; simp)

lemma masked_simps [segment_simps]:
  "masked mac [] = []" "masked mac (s # ss) = mask_segment mac s @ masked mac ss"
  "masked mac (ss @ ts) = masked mac ss @ masked mac ts" "masked mac (map Other w) = w"
  by (simp_all add: masked_def) (induction w; simp)

lemma some_macro_simps [segment_simps]:
  "\<not> some_macro mac []" "some_macro mac (Ident w # ss) \<longleftrightarrow> mac w \<or> some_macro mac ss"
  "some_macro mac (Other c # ss) \<longleftrightarrow> some_macro mac ss"
  "some_macro mac (ss @ ts) \<longleftrightarrow> some_macro mac ss \<or> some_macro mac ts"
  "\<not> some_macro mac (map Other w)"
  by (auto simp: some_macro_def)

text \<open>The bytes an open context has read and not yet given to a segment.\<close>

primrec pending :: "lex_context \<Rightarrow> string" where
  "pending (In_Code num w) = w"
| "pending In_String = []"
| "pending In_Char = []"
| "pending In_Line = []"
| "pending In_Block = []"
| "pending (In_Raw d) = []"

lemma raw_opening_Some:
  assumes "raw_opening cs = Some d"
  obtains rest where "cs = d @ CHR ''('' # rest" "CHR ''('' \<notin> set d"
    "length d \<le> CPP_RAW_STRING_DELIM_MAX"
proof -
  let ?t = "takeWhile (\<lambda>c. c \<noteq> CHR ''('') cs"
  from assms have d: "d = ?t" and l: "length ?t < length cs" and m: "length d \<le> CPP_RAW_STRING_DELIM_MAX"
    by (simp_all add: raw_opening_def Let_def split: if_splits)
  have "cs ! length ?t = CHR ''(''" using nth_length_takeWhile[OF l] by simp
  then have "cs = ?t @ CHR ''('' # drop (Suc (length ?t)) cs"
    using l by (metis append_take_drop_id Cons_nth_drop_Suc takeWhile_eq_take)
  then show thesis using that[of "drop (Suc (length ?t)) cs"] m unfolding d
    by (metis (full_types) set_takeWhileD)
qed

lemma raw_opening_intro:
  "\<lbrakk> CHR ''('' \<notin> set d; length d \<le> CPP_RAW_STRING_DELIM_MAX \<rbrakk> \<Longrightarrow>
    raw_opening (d @ CHR ''('' # rest) = Some d"
proof -
  assume "CHR ''('' \<notin> set d" "length d \<le> CPP_RAW_STRING_DELIM_MAX"
  moreover from this have "takeWhile (\<lambda>c. c \<noteq> CHR ''('') (d @ CHR ''('' # rest) = d"
    by (subst takeWhile_append2) auto
  ultimately show ?thesis by (simp add: raw_opening_def Let_def)
qed

lemma take_Suc_closer:
  "take (Suc n) cs = d @ [q] \<Longrightarrow> n = length d \<Longrightarrow> \<exists>rest. cs = d @ q # rest"
  by (metis append_Cons append_assoc append_take_drop_id self_append_conv2)

text \<open>The segments are a partition of the text.\<close>

lemma segments_text: "text_of (segments ctx cs) = pending ctx @ cs"
proof (induction ctx cs rule: segments.induct)
  case (2 num w c cs)
  consider (sep) "separator num c cs"
    | (part) "\<not> separator num c cs" "w \<noteq> []" "is_identifier_part c"
    | (raw) "\<not> separator num c cs" "w \<noteq> []" "\<not> is_identifier_part c"
        "c = CHR 0x22 \<and> is_raw_string_prefix w"
    | (run) "\<not> separator num c cs" "w \<noteq> []" "\<not> is_identifier_part c"
        "\<not> (c = CHR 0x22 \<and> is_raw_string_prefix w)"
    | (none) "\<not> separator num c cs" "w = []" by blast
  then show ?case
  proof cases
    case sep
    then show ?thesis using 2(1,2) by (simp add: segments_separator segment_simps)
  next
    case part
    then show ?thesis using 2(3) by (simp add: segments_part)
  next
    case raw
    then show ?thesis using 2(4,5)
      by (cases "raw_opening cs") (auto simp: segments_raw segment_simps elim!: raw_opening_Some)
  next
    case run
    then show ?thesis using 2(6) by (simp add: segments_run segment_simps)
  next
    case none
    then show ?thesis using 2(7-)
      by (auto simp: segments_open take_1_eq[simplified] segment_simps)
  qed
next
  case (8 d c cs)
  then show ?case by (auto simp: segments.simps segment_simps dest!: take_Suc_closer)
qed (auto simp: segments.simps segment_simps neq_Nil_conv take_1_eq[simplified])

section \<open>The index and the list\<close>

text \<open>What the state of \<open>replace\<close> at the index \<open>i\<close> stands for.\<close>

definition run_start :: "nat \<Rightarrow> MaskState \<Rightarrow> nat" where
  "run_start i ms = (if k_start ms = 0 then i else k_start ms - 1)"

definition context_of :: "bytes \<Rightarrow> nat \<Rightarrow> MaskState \<Rightarrow> LexState \<Rightarrow> lex_context" where
  "context_of code i ms state =
     (case state of
        Lex_Normal \<Rightarrow> In_Code (if in_number ms then Some (code ! (i - 1)) else None)
                             (span code (run_start i ms) i)
      | Lex_String \<Rightarrow> In_String
      | Lex_Char \<Rightarrow> In_Char
      | Lex_LineComment \<Rightarrow> In_Line
      | Lex_BlockComment \<Rightarrow> In_Block
      | Lex_RawString a n \<Rightarrow> In_Raw (span code a (a + n)))"

definition copied :: "bytes \<Rightarrow> nat \<Rightarrow> MaskState \<Rightarrow> bytes" where
  "copied code i ms = new_code ms @ span code (code_start ms) (run_start i ms)"

definition mask_ok :: "bytes \<Rightarrow> nat \<Rightarrow> MaskState \<Rightarrow> LexState \<Rightarrow> bool" where
  "mask_ok code i ms state \<longleftrightarrow>
     i \<le> length code \<and> k_start ms \<le> i \<and> code_start ms \<le> run_start i ms \<and>
     (in_number ms \<longrightarrow> 0 < i) \<and>
     (case state of
        Lex_Normal \<Rightarrow> ascii_bytes (span code (run_start i ms) i)
      | Lex_RawString a n \<Rightarrow> k_start ms = 0 \<and> \<not> in_number ms \<and> a + n \<le> length code
      | _ \<Rightarrow> k_start ms = 0 \<and> \<not> in_number ms)"

text \<open>
  One round of the loop reads the bytes from \<open>i\<close> to \<open>i + n\<close>; \<open>es\<close> are the segments it completes.
  Before it the context is \<open>ctx\<close>, the bytes \<open>out\<close> have been given out, and \<open>clean\<close> says that none of
  them is masked.
\<close>

definition moves ::
  "(string \<Rightarrow> bool) \<Rightarrow> bytes \<Rightarrow> nat \<Rightarrow> lex_context \<Rightarrow> bytes \<Rightarrow> bool \<Rightarrow> (nat \<times> MaskState \<times> LexState) \<Rightarrow>
    segment list \<Rightarrow> bool" where
  "moves mac code i ctx out clean r es \<longleftrightarrow> (case r of (n, ms', state') \<Rightarrow>
     0 < n \<and> mask_ok code (i + n) ms' state' \<and>
     segments ctx (drop i code) = es @ segments (context_of code (i + n) ms' state') (drop (i + n) code) \<and>
     copied code (i + n) ms' = out @ masked mac es \<and>
     (code_start ms' = 0 \<longleftrightarrow> clean \<and> \<not> some_macro mac es))"

definition advances ::
  "(string \<Rightarrow> bool) \<Rightarrow> bytes \<Rightarrow> nat \<Rightarrow> MaskState \<Rightarrow> LexState \<Rightarrow> (nat \<times> MaskState \<times> LexState) \<Rightarrow>
    segment list \<Rightarrow> bool" where
  "advances mac code i ms state r es \<longleftrightarrow>
     moves mac code i (context_of code i ms state) (copied code i ms) (code_start ms = 0) r es"

lemma raw_delim_loop_eq:
  assumes "s \<le> e" "e \<le> s + length (takeWhile (\<lambda>c. c \<noteq> CHR ''('') (drop s code))" "s \<le> length code"
    "e - s \<le> CPP_RAW_STRING_DELIM_MAX"
  shows "raw_delim_loop code s e =
    Some (let n = length (takeWhile (\<lambda>c. c \<noteq> CHR ''('') (drop s code)) in
          if n \<le> CPP_RAW_STRING_DELIM_MAX then Some (s + n) else None)"
  using assms
proof (induction code s e rule: raw_delim_loop.induct)
  case (1 code s e)
  let ?t = "takeWhile (\<lambda>c. c \<noteq> CHR ''('') (drop s code)"
  have len: "s + length ?t \<le> length code"
    using length_takeWhile_le[of "\<lambda>c. c \<noteq> CHR ''(''" "drop s code"] 1(4) by simp
  show ?case
  proof (cases "e < s + length ?t")
    case True
    then have "e - s < length ?t" using 1(2) by simp
    then have "drop s code ! (e - s) \<noteq> CHR ''(''"
      using set_takeWhileD[OF nth_mem, of "e - s"] takeWhile_nth[of "e - s"] by fastforce
    then have e: "code ! e \<noteq> CHR ''(''" using 1(2,4) by simp
    show ?thesis
    proof (cases "e - s < CPP_RAW_STRING_DELIM_MAX")
      case more: True
      have "raw_delim_loop code s e = raw_delim_loop code s (e + 1)"
        using True len e more 1(2) by (subst raw_delim_loop.simps) simp
      then show ?thesis using 1(1)[of "code ! e" "e - s"] True len e more 1(2-) by simp
    next
      case False
      then show ?thesis using True len e 1(2-) by (subst raw_delim_loop.simps) (simp add: Let_def)
    qed
  next
    case False
    then have e: "e = s + length ?t" using 1(3) by simp
    have "e < length code \<Longrightarrow> code ! e = CHR ''(''"
      using nth_length_takeWhile[of "\<lambda>c. c \<noteq> CHR ''(''" "drop s code"] e 1(4) by simp
    then show ?thesis using e len 1(5) by (subst raw_delim_loop.simps) (auto simp: Let_def)
  qed
qed

lemma enter_raw_string_eq:
  assumes "i < length code"
  shows "enter_raw_string code i = Some (case raw_opening (drop (Suc i) code) of
    None \<Rightarrow> (1, Lex_String)
  | Some d \<Rightarrow> (length d + 2, Lex_RawString (Suc i) (length d)))"
  using assms length_takeWhile_le[of "\<lambda>c. c \<noteq> CHR ''(''" "drop (Suc i) code"]
  by (auto simp: enter_raw_string_def raw_delim_loop_eq raw_opening_def Let_def)

text \<open>Outside code a round only moves on: the accumulator stays, and what it read is copied.\<close>

lemma advances_keep:
  assumes "mask_ok code i ms state" "state \<noteq> Lex_Normal" "0 < n" "i + n \<le> length code"
    and "segments (context_of code i ms state) (drop i code) =
      map Other (span code i (i + n)) @ segments (context_of code (i + n) ms state') (drop (i + n) code)"
    and "case state' of Lex_RawString a m \<Rightarrow> a + m \<le> length code | _ \<Rightarrow> True"
  shows "\<exists>es. advances mac code i ms state (n, ms, state') es"
proof -
  have k: "k_start ms = 0" "\<not> in_number ms" "code_start ms \<le> i" "run_start i ms = i"
    "run_start (i + n) ms = i + n"
    using assms(1,2) by (auto simp: mask_ok_def run_start_def split: LexState.splits)
  have "mask_ok code (i + n) ms state'"
    using k assms(4,6) by (auto simp: mask_ok_def ascii_bytes_def split: LexState.splits)
  moreover have "copied code (i + n) ms = copied code i ms @ span code i (i + n)"
    using k span_append[of "code_start ms" i "i + n" code] by (simp add: copied_def)
  ultimately have "advances mac code i ms state (n, ms, state') (map Other (span code i (i + n)))"
    using assms(3,5) by (simp add: advances_def moves_def segment_simps)
  then show ?thesis ..
qed

lemma take_1_drop: "Suc i < length code \<Longrightarrow> drop (Suc i) code = code ! Suc i # drop (Suc (Suc i)) code"
  by (simp add: Cons_nth_drop_Suc)

text \<open>The bytes at the cursor, as the list sees them.\<close>

lemma drop_cursor: "i < length code \<Longrightarrow> drop i code = code ! i # drop (Suc i) code"
  by (simp add: Cons_nth_drop_Suc)

lemma take_1_cursor:
  "take (Suc 0) (drop (Suc i) code) = (if Suc i < length code then [code ! Suc i] else [])"
  by (auto simp: take_1_drop)

lemma drop_cursor_Nil: "drop (Suc i) code = [] \<longleftrightarrow> \<not> Suc i < length code"
  by auto

lemma span_two: "Suc i < length code \<Longrightarrow> span code i (Suc (Suc i)) = [code ! i, code ! Suc i]"
  using span_append[of i "Suc i" "Suc (Suc i)" code] by (simp add: span_one)

lemma cursor_two:
  "Suc i < length code \<Longrightarrow>
    hd (drop (Suc i) code) = code ! Suc i \<and> tl (drop (Suc i) code) = drop (Suc (Suc i)) code"
  by (simp add: hd_drop_conv_nth tl_drop flip: drop_Suc)

lemmas cursor_simps = take_1_cursor drop_cursor_Nil span_one span_two cursor_two

lemma step_quoted_advances:
  assumes "mask_ok code i ms state" "i < length code"
    and "state = Lex_String \<and> q = CHR 0x22 \<or> state = Lex_Char \<and> q = CHR 0x27"
  shows "\<exists>n state' es. step_quoted code i q state = Some (n, state') \<and>
    advances mac code i ms state (n, ms, state') es"
proof -
  have k: "k_start ms = 0" "\<not> in_number ms" using assms by (auto simp: mask_ok_def)
  define n state' where "n = (if code ! i = CHR 0x5C \<and> i + 1 < length code then 2 else 1 :: nat)"
    and "state' = (if n = 1 \<and> code ! i = q then Lex_Normal else state)"
  have "step_quoted code i q state = Some (n, state')"
    using assms(2) by (auto simp: step_quoted_def n_def state'_def)
  moreover have "\<exists>es. advances mac code i ms state (n, ms, state') es"
  proof (rule advances_keep)
    show "segments (context_of code i ms state) (drop i code) = map Other (span code i (i + n)) @
        segments (context_of code (i + n) ms state') (drop (i + n) code)"
      using assms k by (auto simp: drop_cursor[of i] context_of_def segments.simps cursor_simps
          n_def state'_def run_start_def)
  qed (use assms in \<open>auto simp: n_def state'_def\<close>)
  ultimately show ?thesis by blast
qed

lemma step_line_comment_advances:
  assumes "mask_ok code i ms Lex_LineComment" "i < length code"
  shows "\<exists>n state' es. step_line_comment code i Lex_LineComment = Some (n, state') \<and>
    advances mac code i ms Lex_LineComment (n, ms, state') es"
proof -
  have k: "k_start ms = 0" "\<not> in_number ms" using assms by (auto simp: mask_ok_def)
  define n state' where
    "n = (if code ! i = CHR 0x5C \<and> i + 1 < length code \<and> code ! (i + 1) = CHR 0x0A then 2 else 1 :: nat)"
    and "state' = (if code ! i = CHR 0x0A then Lex_Normal else Lex_LineComment)"
  have "step_line_comment code i Lex_LineComment = Some (n, state')"
    using assms(2) by (auto simp: step_line_comment_def n_def state'_def)
  moreover have "\<exists>es. advances mac code i ms Lex_LineComment (n, ms, state') es"
  proof (rule advances_keep)
    show "segments (context_of code i ms Lex_LineComment) (drop i code) = map Other (span code i (i + n)) @
        segments (context_of code (i + n) ms state') (drop (i + n) code)"
      using assms k by (auto simp: drop_cursor[of i] context_of_def segments.simps cursor_simps
          n_def state'_def run_start_def)
  qed (use assms in \<open>auto simp: n_def state'_def\<close>)
  ultimately show ?thesis by blast
qed

lemma step_block_comment_advances:
  assumes "mask_ok code i ms Lex_BlockComment" "i < length code"
  shows "\<exists>n state' es. step_block_comment code i Lex_BlockComment = Some (n, state') \<and>
    advances mac code i ms Lex_BlockComment (n, ms, state') es"
proof -
  have k: "k_start ms = 0" "\<not> in_number ms" using assms by (auto simp: mask_ok_def)
  define n where
    "n = (if code ! i = CHR ''*'' \<and> i + 1 < length code \<and> code ! (i + 1) = CHR ''/'' then 2 else 1 :: nat)"
  define state' where "state' = (if n = 2 then Lex_Normal else Lex_BlockComment)"
  have "step_block_comment code i Lex_BlockComment = Some (n, state')"
    using assms(2) by (auto simp: step_block_comment_def n_def state'_def)
  moreover have "\<exists>es. advances mac code i ms Lex_BlockComment (n, ms, state') es"
  proof (rule advances_keep)
    show "segments (context_of code i ms Lex_BlockComment) (drop i code) = map Other (span code i (i + n)) @
        segments (context_of code (i + n) ms state') (drop (i + n) code)"
      using assms k by (auto simp: drop_cursor[of i] context_of_def segments.simps cursor_simps
          n_def state'_def run_start_def)
  qed (use assms in \<open>auto simp: n_def state'_def\<close>)
  ultimately show ?thesis by blast
qed

text \<open>The closer of a raw string: a range comparison in the code, a prefix of the rest on lists.\<close>

lemma raw_closer:
  assumes "i < length code" "a + n \<le> length code"
  shows "byte_at code (i + 1 + n) = Some q \<and> slice code (i + 1) (i + 1 + n) = slice code a (a + n) \<longleftrightarrow>
    take (Suc n) (drop (Suc i) code) = span code a (a + n) @ [q]"
proof (cases "Suc i + n < length code")
  case True
  then have "take (Suc n) (drop (Suc i) code) = span code (Suc i) (Suc i + n) @ [code ! (Suc i + n)]"
    by (simp add: span_def take_Suc_conv_app_nth)
  then show ?thesis using True assms by auto
next
  case False
  then show ?thesis using assms
    by (auto simp: byte_at_def dest!: arg_cong[of _ "_ @ _" length])
qed

lemma step_raw_string_advances:
  assumes "mask_ok code i ms (Lex_RawString a m)" "i < length code"
  shows "\<exists>n state' es. step_raw_string code i a m (Lex_RawString a m) = Some (n, state') \<and>
    advances mac code i ms (Lex_RawString a m) (n, ms, state') es"
proof -
  have k: "k_start ms = 0" "\<not> in_number ms" and am: "a + m \<le> length code"
    using assms by (auto simp: mask_ok_def)
  define closes where "closes \<longleftrightarrow> code ! i = CHR '')'' \<and>
    take (Suc m) (drop (Suc i) code) = span code a (a + m) @ [CHR 0x22]"
  define n state' where "n = (if closes then m + 2 else 1)"
    and "state' = (if closes then Lex_Normal else Lex_RawString a m)"
  have step: "step_raw_string code i a m (Lex_RawString a m) = Some (n, state')"
    using assms(2) raw_closer[OF assms(2) am, of "CHR 0x22"]
    by (auto simp: step_raw_string_def n_def state'_def closes_def Let_def)
  have len: "i + n \<le> length code"
    using assms(2) am by (auto simp: n_def closes_def dest!: arg_cong[of _ "_ @ _" length])
  have "\<exists>es. advances mac code i ms (Lex_RawString a m) (n, ms, state') es"
  proof (rule advances_keep)
    show "segments (context_of code i ms (Lex_RawString a m)) (drop i code) =
        map Other (span code i (i + n)) @
        segments (context_of code (i + n) ms state') (drop (i + n) code)"
    proof (cases closes)
      case True
      then have d: "drop (Suc i) code = span code a (a + m) @ CHR 0x22 # drop (i + m + 2) code"
        using append_take_drop_id[of "Suc m" "drop (Suc i) code"] by (simp add: closes_def add.commute)
      have "drop i code = (CHR '')'' # span code a (a + m) @ [CHR 0x22]) @ drop (i + m + 2) code"
        using True d assms(2) by (simp add: drop_cursor[of i] closes_def)
      from span_eqI[OF this] have "span code i (i + n) = CHR '')'' # span code a (a + m) @ [CHR 0x22]"
        using True am by (simp add: n_def)
      then show ?thesis
        using True am k assms(2) d
        by (simp add: drop_cursor[of i] context_of_def segments.simps closes_def n_def state'_def
            run_start_def add.commute)
    next
      case False
      then show ?thesis using am k assms(2)
        by (auto simp: drop_cursor[of i] context_of_def segments.simps closes_def n_def state'_def
            span_one)
    qed
  qed (use assms am len in \<open>auto simp: n_def state'_def\<close>)
  then show ?thesis using step by blast
qed

section \<open>A round in code\<close>

definition number_of :: "bytes \<Rightarrow> nat \<Rightarrow> MaskState \<Rightarrow> char option" where
  "number_of code i ms = (if in_number ms then Some (code ! (i - 1)) else None)"

lemma not_identifier_part [simp]:
  "\<not> is_identifier_part (CHR ''/'')" "\<not> is_identifier_part (CHR 0x22)" "\<not> is_identifier_part (CHR 0x27)"
  by (simp_all add: is_identifier_part_def ascii_defs)

lemma starter_part: "is_identifier_starter c \<Longrightarrow> is_identifier_part c"
  by (auto simp: is_identifier_part_def is_identifier_starter_def)

lemma digit_part: "is_ascii_digit c \<Longrightarrow> is_identifier_part c"
  by (simp add: is_identifier_part_def)

lemma identifier_part_ascii: "is_identifier_part c \<Longrightarrow> (of_char c :: nat) \<le> 0x7F"
  by (auto simp: is_identifier_part_def ascii_defs Let_def)

lemma next_number_None:
  "\<not> is_identifier_part c \<Longrightarrow> c \<noteq> CHR ''.'' \<Longrightarrow> next_number num w c = None"
  by (auto simp: next_number_def digit_part split: option.split)

lemma track_numeric_run_eq:
  assumes "i < length code" "in_number ms \<longrightarrow> 0 < i" "w = [] \<longleftrightarrow> k_start ms = 0"
  shows "track_numeric_run code i (k_start ms) (in_number ms) =
    Some (if separator (number_of code i ms) (code ! i) (drop (Suc i) code) then (True, in_number ms)
          else (False, next_number (number_of code i ms) w (code ! i) \<noteq> None))"
  using assms
  by (cases "Suc i < length code")
     (auto simp: track_numeric_run_def is_digit_separator_def separator_def next_number_def
       number_of_def take_1_drop)

text \<open>Behind the end of a run, or where none is open.\<close>

lemma step_open_moves:
  assumes "i < length code" "k_start ms = 0" "code_start ms \<le> i"
    and "\<not> separator num (code ! i) (drop (Suc i) code)"
    and num: "in_number ms \<longleftrightarrow> next_number num [] (code ! i) \<noteq> None"
  shows "\<exists>r es. step_open code i (code ! i) ms = Some r \<and>
    moves mac code i (In_Code num []) (copied code i ms) (code_start ms = 0) r es"
proof -
  let ?c = "code ! i"
  define line block where
    "line \<longleftrightarrow> ?c = CHR ''/'' \<and> i + 1 < length code \<and> code ! (i + 1) = CHR ''/''"
    and "block \<longleftrightarrow> ?c = CHR ''/'' \<and> i + 1 < length code \<and> code ! (i + 1) = CHR ''*''"
  define opens where "opens \<longleftrightarrow> line \<or> block \<or> ?c = CHR 0x22 \<or> ?c = CHR 0x27"
  define n where "n = (if line \<or> block then 2 else 1 :: nat)"
  define ms' where "ms' = (if \<not> opens \<and> is_identifier_starter ?c then ms\<lparr> k_start := i + 1 \<rparr> else ms)"
  define state' where "state' = (if line then Lex_LineComment else if block then Lex_BlockComment
    else if ?c = CHR 0x22 then Lex_String else if ?c = CHR 0x27 then Lex_Char else Lex_Normal)"
  define es where "es = (if \<not> opens \<and> is_identifier_starter ?c then [] else map Other (span code i (i + n)))"
  have len: "i + n \<le> length code"
    using assms(1) by (auto simp: n_def line_def block_def next_def split: if_splits)
  have off: "opens \<Longrightarrow> \<not> in_number ms"
    using num by (auto simp: opens_def line_def block_def next_def next_number_None split: if_splits)
  have "step_open code i ?c ms = Some (n, ms', state')"
    using assms(1,2)
    by (auto simp: step_open_def n_def ms'_def state'_def opens_def line_def block_def next_def)
  moreover have "mask_ok code (i + n) ms' state'"
    using assms(2,3) len off identifier_part_ascii[OF starter_part, of ?c]
    by (auto simp: mask_ok_def ms'_def state'_def opens_def n_def run_start_def ascii_bytes_def span_one)
  moreover have "segments (In_Code num []) (drop i code) =
      es @ segments (context_of code (i + n) ms' state') (drop (i + n) code)"
    using assms(1,2,4) num off
    by (auto simp: drop_cursor[of i] segments_open context_of_def run_start_def cursor_simps es_def
        n_def ms'_def state'_def opens_def line_def block_def next_def next_number_def
        split: option.splits if_splits)
  moreover have "copied code (i + n) ms' = copied code i ms @ masked mac es"
    using assms(2,3) len span_append[of "code_start ms" i "i + n" code]
    by (auto simp: copied_def ms'_def es_def run_start_def segment_simps)
  moreover have "code_start ms' = code_start ms" "\<not> some_macro mac es" "0 < n"
    by (simp_all add: ms'_def es_def n_def segment_simps)
  ultimately show ?thesis by (auto simp: moves_def)
qed

text \<open>A run that ends: it becomes one segment, and the round goes on as if it had started here.\<close>

lemma moves_run:
  assumes "moves mac code i (In_Code num []) out' clean' r es"
    and "segments (In_Code num w) (drop i code) = Ident w # segments (In_Code num []) (drop i code)"
    and "out' = out @ mask_segment mac (Ident w)" "clean' \<longleftrightarrow> clean \<and> \<not> mac w"
  shows "moves mac code i (In_Code num w) out clean r (Ident w # es)"
  using assms by (auto simp: moves_def segment_simps)

lemma mask_run_eq:
  assumes "code_start ms \<le> start" "start \<le> i" "i \<le> length code"
  shows "mask_run code start i ms = Some (ms\<lparr>
    new_code := new_code ms @ span code (code_start ms) start @ replicate (i - start) (CHR ''$''),
    code_start := i \<rparr>)"
  using assms by (simp add: mask_run_def)

lemma step_normal_advances:
  assumes ok: "mask_ok code i ms Lex_Normal" and i: "i < length code"
  shows "\<exists>r es. step_normal P macros code i ms = Some r \<and>
    advances (is_macro P macros) code i ms Lex_Normal r es"
proof -
  let ?mac = "is_macro P macros" and ?c = "code ! i"
  define num s where "num = number_of code i ms" and "s = run_start i ms"
  define w where "w = span code s i"
  define num' where "num' = next_number num w ?c"
  define sep where "sep \<longleftrightarrow> separator num ?c (drop (Suc i) code)"
  let ?ms = "ms\<lparr> in_number := num' \<noteq> None \<rparr>"
  have s: "s \<le> i" "code_start ms \<le> s" and wa: "ascii_bytes w" and pos: "in_number ms \<longrightarrow> 0 < i"
    and k0: "k_start ms = 0 \<Longrightarrow> s = i" and k1: "k_start ms \<noteq> 0 \<Longrightarrow> s = k_start ms - 1 \<and> s < i"
    using ok by (auto simp: mask_ok_def s_def w_def run_start_def)
  have w0: "w = [] \<longleftrightarrow> k_start ms = 0" and lw: "length w = i - s"
    using s i k0 k1 by (auto simp: w_def)
  have ctx: "context_of code i ms Lex_Normal = In_Code num w"
    by (simp add: context_of_def num_def number_of_def w_def s_def)
  have out: "copied code i ms = new_code ms @ span code (code_start ms) s"
    by (simp add: copied_def s_def)
  have track: "track_numeric_run code i (k_start ms) (in_number ms) =
      Some (if sep then (True, in_number ms) else (False, num' \<noteq> None))"
    using track_numeric_run_eq[OF i pos w0] by (simp add: sep_def num_def num'_def)
  have more: "span code s (Suc i) = w @ [?c]" "span code i (Suc i) = [?c]"
    using s i by (simp_all add: w_def span_Suc span_one)
  have sepc: "sep \<Longrightarrow> ?c = CHR 0x27 \<and> in_number ms"
    by (auto simp: sep_def separator_def num_def number_of_def split: option.splits if_splits)
  consider (sep) sep | (part) "\<not> sep" "w \<noteq> []" "is_identifier_part ?c"
    | (raw) "\<not> sep" "w \<noteq> []" "?c = CHR 0x22" "is_raw_string_prefix w"
    | (run) "\<not> sep" "w \<noteq> []" "\<not> is_identifier_part ?c" "\<not> (?c = CHR 0x22 \<and> is_raw_string_prefix w)"
    | (none) "\<not> sep" "w = []" by auto
  then show ?thesis
  proof cases
    case sep
    let ?es = "if w = [] then [Other ?c] else []"
    have "step_normal P macros code i ms = Some (1, ms, Lex_Normal)"
      using sep i track by (simp add: step_normal_def)
    moreover have "moves ?mac code i (In_Code num w) (copied code i ms) (code_start ms = 0)
        (1, ms, Lex_Normal) ?es"
      using sep sepc ok k0 k1 w0 wa more s i
      by (auto simp: moves_def mask_ok_def run_start_def ascii_bytes_def context_of_def copied_def
          drop_cursor[of i] segments_separator sep_def segment_simps span_Suc s_def[symmetric] out)
    ultimately show ?thesis by (auto simp: advances_def ctx)
  next
    case none
    then show ?thesis
      using step_open_moves[of i code ?ms num ?mac] i track w0 s k0
      by (auto simp: step_normal_def advances_def ctx sep_def num'_def copied_def run_start_def)
  next
    case part
    then have "?c \<noteq> CHR ''/''" "?c \<noteq> CHR 0x22" "?c \<noteq> CHR 0x27" by auto
    then have "step_normal P macros code i ms = Some (1, ?ms, Lex_Normal)"
      using part i track w0 by (simp add: step_normal_def step_open_def)
    moreover have "moves ?mac code i (In_Code num w) (copied code i ms) (code_start ms = 0)
        (1, ?ms, Lex_Normal) []"
    proof -
      have "run_start (i + 1) ?ms = s" using part w0 k1 by (simp add: run_start_def)
      moreover have "segments (In_Code num w) (drop i code) =
          segments (In_Code num' (w @ [?c])) (drop (Suc i) code)"
        using part i by (simp add: drop_cursor[of i] segments_part sep_def num'_def)
      moreover have "num' = None \<or> num' = Some ?c"
        by (simp add: num'_def next_number_def)
      ultimately show ?thesis
        using part ok s wa more i identifier_part_ascii[of ?c]
        by (auto simp: moves_def mask_ok_def context_of_def copied_def s_def[symmetric] segment_simps
            ascii_bytes_def)
    qed
    ultimately show ?thesis by (auto simp: advances_def ctx)
  next
    case raw
    define d where "d = raw_opening (drop (Suc i) code)"
    define n state' where "n = (case d of None \<Rightarrow> 1 | Some d \<Rightarrow> length d + 2)"
      and "state' = (case d of None \<Rightarrow> Lex_String | Some d \<Rightarrow> Lex_RawString (Suc i) (length d))"
    let ?ms' = "?ms\<lparr> k_start := 0 \<rparr>"
    have num': "num' = None" using raw by (simp add: num'_def next_number_None)
    have cop: "copied code j (ms\<lparr> in_number := b, k_start := 0 \<rparr>) =
        new_code ms @ span code (code_start ms) j" for j b
      by (simp add: copied_def run_start_def)
    have "step_normal P macros code i ms = Some (n, ?ms', state')"
      using raw i track w0 s k1 from_utf8_ascii[OF wa]
      by (auto simp: step_normal_def enter_raw_string_eq n_def state'_def w_def d_def split: option.split)
    moreover have "moves ?mac code i (In_Code num w) (copied code i ms) (code_start ms = 0)
        (n, ?ms', state') (map Other (span code s (i + n)))"
    proof (cases d)
      case None
      then show ?thesis
        using raw s i more num' d_def span_append[of "code_start ms" s "Suc i" code]
        by (simp add: moves_def mask_ok_def run_start_def context_of_def cop n_def state'_def
            segments_raw drop_cursor[of i] sep_def segment_simps out)
    next
      case (Some e)
      then obtain rest where rest: "drop (Suc i) code = e @ CHR ''('' # rest"
        using raw_opening_Some[of "drop (Suc i) code" e] d_def by metis
      have "length (drop (Suc i) code) = Suc (length e + length rest)" unfolding rest by simp
      then have len: "Suc i + length e < length code" by simp
      have e: "span code (Suc i) (Suc i + length e) = e" using span_eqI[OF rest] .
      have "drop (Suc i) code = (e @ ''('') @ rest" using rest by simp
      from span_eqI[OF this] have "span code (Suc i) (i + n) = e @ ''(''"
        using Some by (simp add: n_def)
      moreover have "span code s (i + n) = span code s (Suc i) @ span code (Suc i) (i + n)"
        using Some s by (intro span_append) (simp_all add: n_def)
      moreover have "drop (Suc (length e)) (drop (Suc i) code) = drop (i + n) code"
        using Some by (simp add: n_def add.commute)
      ultimately show ?thesis
        using raw s i more num' len e Some d_def span_append[of "code_start ms" s "i + n" code]
        by (simp add: moves_def mask_ok_def run_start_def context_of_def cop n_def state'_def
            segments_raw drop_cursor[of i] sep_def segment_simps out del: drop_drop)
    qed
    ultimately show ?thesis by (auto simp: advances_def ctx)
  next
    case run
    let ?ms1 = "?ms\<lparr> k_start := 0 \<rparr>"
    define ms2 where "ms2 = (if ?mac w then ?ms1\<lparr>
      new_code := new_code ms @ span code (code_start ms) s @ replicate (i - s) (CHR ''$''),
      code_start := i \<rparr> else ?ms1)"
    have "step_normal P macros code i ms = step_open code i ?c ms2"
      using run i track w0 s k1 from_utf8_ascii[OF wa]
      by (auto simp: step_normal_def ms2_def w_def mask_run_eq)
    moreover obtain r es where r: "step_open code i ?c ms2 = Some r"
      "moves ?mac code i (In_Code num []) (copied code i ms2) (code_start ms2 = 0) r es"
    proof -
      have "next_number num w ?c = next_number num [] ?c"
        using run digit_part[of ?c] by (auto simp: next_number_def split: option.split)
      moreover have "k_start ms2 = 0" "code_start ms2 \<le> i" "in_number ms2 \<longleftrightarrow> num' \<noteq> None"
        using s by (auto simp: ms2_def)
      ultimately show thesis
        using step_open_moves[of i code ms2 num ?mac] that i run(1) by (auto simp: sep_def num'_def)
    qed
    moreover have "moves ?mac code i (In_Code num w) (copied code i ms) (code_start ms = 0) r (Ident w # es)"
    proof (rule moves_run[OF r(2)])
      show "segments (In_Code num w) (drop i code) = Ident w # segments (In_Code num []) (drop i code)"
        using run i by (simp add: drop_cursor[of i] segments_run sep_def)
      have "copied code i ms2 = new_code ms2 @ span code (code_start ms2) i"
        by (simp add: copied_def run_start_def ms2_def)
      then show "copied code i ms2 = copied code i ms @ mask_segment ?mac (Ident w)"
        using s i lw span_append[of "code_start ms" s i code] by (simp add: out ms2_def flip: w_def)
      show "code_start ms2 = 0 \<longleftrightarrow> code_start ms = 0 \<and> \<not> ?mac w"
        using run(2) w0 k1 by (auto simp: ms2_def)
    qed
    ultimately show ?thesis by (auto simp: advances_def ctx)
  qed
qed

section \<open>The whole pass\<close>

lemma replace_step_advances:
  assumes "mask_ok code i ms state" "i < length code"
  shows "\<exists>r es. replace_step P macros code i ms state = Some r \<and>
    advances (is_macro P macros) code i ms state r es"
proof (cases state)
  case Lex_Normal
  then show ?thesis using step_normal_advances assms by (simp add: replace_step_def)
next
  case Lex_String
  then show ?thesis
    using step_quoted_advances[OF assms, of "CHR 0x22" "is_macro P macros"]
    by (force simp: replace_step_def)
next
  case Lex_Char
  then show ?thesis
    using step_quoted_advances[OF assms, of "CHR 0x27" "is_macro P macros"]
    by (force simp: replace_step_def)
next
  case Lex_LineComment
  then show ?thesis
    using step_line_comment_advances[of code i ms "is_macro P macros"] assms
    by (force simp: replace_step_def)
next
  case Lex_BlockComment
  then show ?thesis
    using step_block_comment_advances[of code i ms "is_macro P macros"] assms
    by (force simp: replace_step_def)
next
  case (Lex_RawString a m)
  then show ?thesis
    using step_raw_string_advances[of code i ms a m "is_macro P macros"] assms
    by (force simp: replace_step_def)
qed

lemma segments_end: "segments ctx [] = (if pending ctx = [] then [] else [Ident (pending ctx)])"
  by (cases ctx) (simp_all add: segments.simps)

lemma replace_finish_eq:
  assumes "mask_ok code (length code) ms state"
  defines "es \<equiv> segments (context_of code (length code) ms state) []"
  shows "replace_finish P macros code ms state =
    Some (if code_start ms = 0 \<and> \<not> some_macro (is_macro P macros) es then None
          else Some (copied code (length code) ms @ masked (is_macro P macros) es))"
proof (cases "state = Lex_Normal \<and> k_start ms \<noteq> 0")
  case True
  then have s: "k_start ms - 1 < length code" "code_start ms \<le> k_start ms - 1"
    and a: "ascii_bytes (span code (k_start ms - 1) (length code))"
    and w: "span code (k_start ms - 1) (length code) \<noteq> []"
    using assms(1) by (auto simp: mask_ok_def run_start_def)
  have es: "es = [Ident (span code (k_start ms - 1) (length code))]"
    using True w by (simp add: es_def segments_end context_of_def run_start_def)
  show ?thesis
    using True s from_utf8_ascii[OF a] span_append[of "code_start ms" "k_start ms - 1" "length code" code]
    by (auto simp: replace_finish_def mask_run_eq es copied_def run_start_def segment_simps)
next
  case False
  then have "es = []" "run_start (length code) ms = length code" "code_start ms \<le> length code"
    using assms(1) by (auto simp: es_def segments_end context_of_def mask_ok_def run_start_def
        split: LexState.splits)
  then show ?thesis
    using False by (auto simp: replace_finish_def copied_def segment_simps)
qed

lemma replace_loop_segments:
  assumes "mask_ok code i ms state"
  defines "es \<equiv> segments (context_of code i ms state) (drop i code)"
  shows "\<exists>ms' state'. replace_loop P macros code i ms state = Some (ms', state') \<and>
    replace_finish P macros code ms' state' =
      Some (if code_start ms = 0 \<and> \<not> some_macro (is_macro P macros) es then None
            else Some (copied code i ms @ masked (is_macro P macros) es))"
  using assms(1) unfolding es_def
proof (induction "length code - i" arbitrary: i ms state rule: less_induct)
  case less
  show ?case
  proof (cases "i < length code")
    case True
    obtain n ms1 state1 es where
      step: "replace_step P macros code i ms state = Some (n, ms1, state1)"
      and adv: "advances (is_macro P macros) code i ms state (n, ms1, state1) es"
      using replace_step_advances[OF less.prems True] by (metis prod_cases3)
    have "length code - (i + n) < length code - i" "mask_ok code (i + n) ms1 state1"
      using adv True by (auto simp: advances_def moves_def)
    from less.hyps[OF this] show ?thesis
      using step adv True
      by (subst replace_loop.simps) (auto simp: advances_def moves_def segment_simps)
  next
    case False
    then have "i = length code" using less.prems by (simp add: mask_ok_def)
    then show ?thesis
      using replace_finish_eq less.prems by (subst replace_loop.simps) simp
  qed
qed

abbreviation source_segments :: "bytes \<Rightarrow> segment list" where
  "source_segments code \<equiv> segments (In_Code None []) code"

lemma replace_segments:
  "replace P macros code =
    Some (if some_macro (is_macro P macros) (source_segments code)
          then Some (masked (is_macro P macros) (source_segments code)) else None)"
  using replace_loop_segments[of code 0 "\<lparr> k_start = 0, code_start = 0, in_number = False, new_code = [] \<rparr>"
      Lex_Normal P macros]
  by (auto simp: replace_def mask_ok_def context_of_def copied_def run_start_def ascii_bytes_def)

end
