(* ===== verification/C_Macro_Text.thy ===== *)
theory C_Macro_Text
  imports C_Macro_Lexer "HOL-Library.Sublist"
begin

text \<open>
  What the masking pass does to a text, in the terms of the C and C++ standards: comments and
  literals are copied, an identifier is masked when it is a macro, offsets and lines stay. The last
  section has the defect of the pass: it looks for identifiers inside numbers.
\<close>

section \<open>The source the parser reads\<close>

text \<open>
  \<open>Parser::new\<close> in \<^verbatim>\<open>parser.rs\<close>: the masked source, when \<open>get_fake_code\<close> gives one, else the
  source itself.
\<close>

definition parser_code :: "(string \<Rightarrow> bool) \<Rightarrow> string set \<Rightarrow> bytes \<Rightarrow> bytes option" where
  "parser_code predefined macros code = do {
     fake_code \<leftarrow> replace predefined macros code;
     Some (case fake_code of Some fake \<Rightarrow> fake | None \<Rightarrow> code)
   }"

lemma masked_without_macros: "\<not> some_macro mac ss \<Longrightarrow> masked mac ss = text_of ss"
proof (induction ss)
  case (Cons s ss)
  then show ?case by (cases s) (simp_all add: segment_simps)
qed (simp add: segment_simps)

lemma source_text: "text_of (source_segments code) = code"
  by (simp add: segments_text)

lemma parser_code_eq: "parser_code P macros code = Some (masked (is_macro P macros) (source_segments code))"
  using masked_without_macros[of "is_macro P macros" "source_segments code"]
  by (simp add: parser_code_def replace_segments source_text)

section \<open>Identifier runs\<close>

definition run_byte :: "char \<Rightarrow> bool" where
  "run_byte c \<longleftrightarrow> is_identifier_part c \<or> c = CHR 0x27"

primrec run_segment :: "segment \<Rightarrow> bool" where
  "run_segment (Ident w) \<longleftrightarrow> w \<noteq> [] \<and> list_all run_byte w"
| "run_segment (Other c) \<longleftrightarrow> True"

lemma run_segments_Other [simp]: "list_all run_segment (map Other w)"
  by (simp add: list_all_iff)

lemma run_byte_part [simp]: "is_identifier_part c \<Longrightarrow> run_byte c" "run_byte (CHR 0x27)"
  by (simp_all add: run_byte_def)

lemma segments_runs:
  "list_all run_byte (pending ctx) \<Longrightarrow> list_all run_segment (segments ctx cs)"
proof (induction ctx cs rule: segments.induct)
  case (2 num v c cs)
  consider (sep) "separator num c cs"
    | (part) "\<not> separator num c cs" "v \<noteq> []" "is_identifier_part c"
    | (raw) "\<not> separator num c cs" "v \<noteq> []" "c = CHR 0x22" "is_raw_string_prefix v"
    | (run) "\<not> separator num c cs" "v \<noteq> []" "\<not> is_identifier_part c"
        "\<not> (c = CHR 0x22 \<and> is_raw_string_prefix v)"
    | (none) "\<not> separator num c cs" "v = []" by blast
  then show ?case
  proof cases
    case sep
    then have "c = CHR 0x27" by (simp add: separator_def)
    then show ?thesis using sep 2(1,2) "2.prems" by (simp add: segments_separator)
  next
    case part
    then show ?thesis using 2(3) "2.prems" by (simp add: segments_part)
  next
    case raw
    then show ?thesis using 2(4,5) by (simp add: segments_raw split: option.split)
  next
    case run
    then show ?thesis using 2(6) "2.prems" by (simp add: segments_run)
  next
    case none
    then show ?thesis using 2(7-12) by (auto simp: segments_open starter_part)
  qed
next
  case (8 d c cs)
  then show ?case by (simp add: segments.simps)
qed (simp_all add: segments.simps)

lemma masked_layout:
  assumes "list_all run_segment ss"
  shows "list_all2 (\<lambda>a b. b = a \<or> b = CHR ''$'' \<and> run_byte a) (text_of ss) (masked mac ss)"
  using assms
proof (induction ss)
  case (Cons s ss)
  have "list_all2 (\<lambda>a b. b = a \<or> b = CHR ''$'' \<and> run_byte a) (segment_text s) (mask_segment mac s)"
  proof (cases s)
    case (Ident w)
    then show ?thesis using Cons.prems by (auto simp: list_all2_conv_all_nth list_all_length)
  qed (simp add: list_all2_Cons1)
  then show ?case using Cons by (simp add: segment_simps list_all2_appendI)
qed (simp add: segment_simps)

section \<open>Comments and literals\<close>

text \<open>
  What may stand between the delimiters: after a backslash any byte in a quoted literal, and a line
  end in a line comment.
\<close>

fun literal_body :: "char \<Rightarrow> string \<Rightarrow> bool" where
  "literal_body q [] \<longleftrightarrow> True"
| "literal_body q (c # cs) \<longleftrightarrow>
     (if c = CHR 0x5C then (case cs of [] \<Rightarrow> False | d # ds \<Rightarrow> literal_body q ds)
      else c \<noteq> q \<and> literal_body q cs)"

fun line_body :: "string \<Rightarrow> bool" where
  "line_body [] \<longleftrightarrow> True"
| "line_body (c # cs) \<longleftrightarrow>
     (if c = CHR 0x5C then (case cs of [] \<Rightarrow> False
        | d # ds \<Rightarrow> if d = CHR 0x0A then line_body ds else line_body cs)
      else c \<noteq> CHR 0x0A \<and> line_body cs)"

text \<open>The closer of a raw string does not occur before its end.\<close>

definition raw_body :: "string \<Rightarrow> string \<Rightarrow> bool" where
  "raw_body d b \<longleftrightarrow> (\<forall>k<length b. \<not> prefix (CHR '')'' # d @ [CHR 0x22])
     (drop k (b @ CHR '')'' # d @ [CHR 0x22])))"

lemma block_masked:
  "\<not> sublist ''*/'' (b @ ''*'') \<Longrightarrow>
    masked mac (segments In_Block (b @ ''*/'' @ r)) = b @ ''*/'' @ masked mac (source_segments r)"
proof (induction b)
  case Nil
  then show ?case by (simp add: segments.simps segment_simps)
next
  case (Cons c b)
  then have "\<not> (c = CHR ''*'' \<and> take 1 (b @ ''*/'' @ r) = ''/'')"
    by (cases b) (auto simp: sublist_Cons_right)
  then show ?case using Cons by (auto simp: segments.simps segment_simps sublist_Cons_right)
qed

lemma line_masked:
  "line_body b \<Longrightarrow> masked mac (segments In_Line (b @ CHR 0x0A # r)) =
    b @ CHR 0x0A # masked mac (source_segments r)"
proof (induction b rule: line_body.induct)
  case (2 c cs)
  then show ?case
    by (cases cs) (auto simp: segments.simps segment_simps split: if_splits)
qed (simp add: segments.simps segment_simps)

lemma string_masked:
  "literal_body (CHR 0x22) b \<Longrightarrow> masked mac (segments In_String (b @ CHR 0x22 # r)) =
    b @ CHR 0x22 # masked mac (source_segments r)"
proof (induction "CHR 0x22" b rule: literal_body.induct)
  case (2 c cs)
  then show ?case
    by (cases cs) (auto simp: segments.simps segment_simps split: if_splits)
qed (simp add: segments.simps segment_simps)

lemma char_masked:
  "literal_body (CHR 0x27) b \<Longrightarrow> masked mac (segments In_Char (b @ CHR 0x27 # r)) =
    b @ CHR 0x27 # masked mac (source_segments r)"
proof (induction "CHR 0x27" b rule: literal_body.induct)
  case (2 c cs)
  then show ?case
    by (cases cs) (auto simp: segments.simps segment_simps split: if_splits)
qed (simp add: segments.simps segment_simps)

lemma raw_masked:
  "raw_body d b \<Longrightarrow>
    masked mac (segments (In_Raw d) (b @ CHR '')'' # d @ CHR 0x22 # r)) =
    b @ CHR '')'' # d @ CHR 0x22 # masked mac (source_segments r)"
proof (induction b)
  case Nil
  then show ?case by (simp add: segments.simps segment_simps)
next
  case (Cons c b)
  let ?close = "CHR '')'' # d @ [CHR 0x22]"
  have "\<not> prefix ?close (c # b @ ?close)"
    using Cons.prems by (force simp: raw_body_def)
  moreover have "take (Suc (length d)) ((b @ ?close) @ r) = take (Suc (length d)) (b @ ?close)"
    by (subst take_append) simp
  ultimately have "\<not> (c = CHR '')'' \<and> take (Suc (length d)) ((b @ ?close) @ r) = d @ [CHR 0x22])"
    by (metis Cons_prefix_Cons take_is_prefix)
  moreover have "raw_body d b"
    using Cons.prems by (fastforce simp: raw_body_def)
  ultimately show ?case using Cons.IH by (auto simp: segments.simps segment_simps)
qed

section \<open>Identifiers and numbers\<close>

definition c_identifier :: "string \<Rightarrow> bool" where
  "c_identifier w \<longleftrightarrow> w \<noteq> [] \<and> is_identifier_starter (hd w) \<and> list_all is_identifier_part (tl w)"

text \<open>Decimal digits, single quotes between them.\<close>

fun decimal :: "string \<Rightarrow> bool" where
  "decimal [] \<longleftrightarrow> False"
| "decimal [c] \<longleftrightarrow> is_ascii_digit c"
| "decimal (c # d # cs) \<longleftrightarrow> is_ascii_digit c \<and> (if d = CHR 0x27 then decimal cs else decimal (d # cs))"

text \<open>What may follow a token so that it ends there.\<close>

definition ends_before :: "string \<Rightarrow> string \<Rightarrow> bool" where
  "ends_before rest extra \<longleftrightarrow>
     (case rest of [] \<Rightarrow> True | c # _ \<Rightarrow> \<not> is_identifier_part c \<and> c \<notin> set extra)"

lemma digit_not:
  assumes "is_ascii_digit c"
  shows "\<not> is_identifier_starter c" "c \<noteq> CHR ''/''" "c \<noteq> CHR 0x22" "c \<noteq> CHR 0x27"
    "is_ascii_hexdigit c"
  using assms by (auto simp: is_identifier_starter_def ascii_defs Let_def)

lemma starter_not:
  assumes "is_identifier_starter c"
  shows "\<not> is_ascii_digit c" "c \<noteq> CHR ''/''" "c \<noteq> CHR 0x22" "c \<noteq> CHR 0x27"
  using assms by (auto simp: is_identifier_starter_def ascii_defs Let_def)

lemma separator_quote: "separator num c cs \<Longrightarrow> c = CHR 0x27"
  by (simp add: separator_def)

lemma not_separator [simp]: "c \<noteq> CHR 0x27 \<Longrightarrow> \<not> separator num c cs" "\<not> separator None c cs"
  by (auto simp: separator_def)

lemma part_not_quote: "is_identifier_part c \<Longrightarrow> c \<noteq> CHR 0x27"
  by (auto simp: is_identifier_part_def ascii_defs)

lemma run_continues:
  assumes "list_all is_identifier_part v" "w \<noteq> []"
  shows "\<exists>num'. (num = None \<longrightarrow> num' = None) \<and>
    segments (In_Code num w) (v @ cs) = segments (In_Code num' (w @ v)) cs"
  using assms
proof (induction v arbitrary: num w)
  case (Cons c v)
  moreover have "num = None \<longrightarrow> next_number num w c = None"
    using Cons.prems by (simp add: next_number_def)
  ultimately show ?case
    using Cons.IH[of "w @ [c]" "next_number num w c"] by (auto simp: segments_part part_not_quote)
qed auto

lemma identifier_run:
  assumes "c_identifier w"
  shows "\<exists>num'. (num = None \<longrightarrow> num' = None) \<and>
    segments (In_Code num []) (w @ cs) = segments (In_Code num' w) cs"
proof -
  obtain c v where w: "w = c # v" "is_identifier_starter c" "list_all is_identifier_part v"
    using assms by (cases w) (auto simp: c_identifier_def)
  have "segments (In_Code num []) (w @ cs) = segments (In_Code (next_number num [] c) [c]) (v @ cs)"
    using w starter_not[of c] by (simp add: segments_open)
  moreover have "num = None \<longrightarrow> next_number num [] c = None"
    using w starter_not[of c] by (simp add: next_number_def)
  moreover have "\<exists>num'. (next_number num [] c = None \<longrightarrow> num' = None) \<and>
      segments (In_Code (next_number num [] c) [c]) (v @ cs) = segments (In_Code num' ([c] @ v)) cs"
    by (rule run_continues[OF w(3)]) simp
  then obtain num' where "next_number num [] c = None \<longrightarrow> num' = None"
      "segments (In_Code (next_number num [] c) [c]) (v @ cs) = segments (In_Code num' ([c] @ v)) cs"
    by (elim exE conjE) (rule that)
  ultimately have "(num = None \<longrightarrow> num' = None) \<and>
      segments (In_Code num []) (w @ cs) = segments (In_Code num' w) cs"
    by (simp add: w(1))
  then show ?thesis ..
qed

lemma run_ends:
  assumes "w \<noteq> []" "ends_before rest [CHR 0x27]" "is_raw_string_prefix w \<longrightarrow> ends_before rest [CHR 0x22]"
  shows "segments (In_Code num w) rest = Ident w # segments (In_Code num []) rest"
  using assms by (cases rest) (auto simp: segments_run segments.simps(1) ends_before_def)

lemma run_ends_None:
  assumes "w \<noteq> []" "ends_before rest []" "is_raw_string_prefix w \<longrightarrow> ends_before rest [CHR 0x22]"
  shows "segments (In_Code None w) rest = Ident w # source_segments rest"
  using assms by (cases rest) (auto simp: segments_run segments.simps(1) ends_before_def)

lemma number_ends:
  "ends_before rest [CHR ''.'', CHR 0x27] \<Longrightarrow> segments (In_Code num []) rest = source_segments rest"
  by (cases rest) (auto simp: segments_open segments.simps(1) ends_before_def next_number_None)

lemma decimal_segments:
  "decimal ds \<Longrightarrow>
    segments (In_Code num []) (ds @ cs) = map Other ds @ segments (In_Code (Some (last ds)) []) cs"
proof (induction ds arbitrary: num rule: decimal.induct)
  case (2 c)
  then show ?case
    using digit_not[of c] by (auto simp: segments_open next_number_def digit_part split: option.split)
next
  case (3 c d ds)
  have c: "segments (In_Code num []) (c # d # ds @ cs) = Other c # segments (In_Code (Some c) []) (d # ds @ cs)"
    using 3(3) digit_not[of c] by (auto simp: segments_open next_number_def digit_part split: option.split)
  show ?case
  proof (cases "d = CHR 0x27")
    case True
    then have ds: "decimal ds" "ds \<noteq> []" using 3(3) by auto
    then have "is_ascii_hexdigit (hd ds)" by (cases ds rule: decimal.cases) (auto simp: digit_not)
    then have "separator (Some c) d (ds @ cs)"
      using True ds 3(3) by (cases ds) (auto simp: separator_def digit_not)
    then show ?thesis using 3(1)[OF True ds(1)] c ds by (simp add: segments_separator)
  next
    case False
    then show ?thesis using 3(2)[OF False] 3(3) c by simp
  qed
qed simp

section \<open>Properties\<close>

text \<open>
  Property C7. \<open>replace\<close> refines the reference lexer, whose segments are a partition of the
  source: on every source and every set of macros it returns without a panic, \<open>None\<close> when no run
  is a macro, and otherwise the source with the runs that are macros overwritten.
\<close>

theorem replace_masks_macros:
  "text_of (source_segments code) = code \<and>
   replace P macros code =
     Some (if some_macro (is_macro P macros) (source_segments code)
           then Some (masked (is_macro P macros) (source_segments code)) else None)"
  by (simp add: source_text replace_segments)

text \<open>
  Property C25. The masked source has the layout of the source: it has the same length, and where a byte
  differs, it was a byte of an identifier run and is now a dollar. So every line end, and with it
  every offset, row and column a metric is computed from, is where it was.
\<close>

theorem parser_code_keeps_layout:
  "\<exists>fake. parser_code P macros code = Some fake \<and>
     list_all2 (\<lambda>a b. b = a \<or> b = CHR ''$'' \<and> run_byte a) code fake \<and>
     map (\<lambda>c. c = CHR 0x0A) fake = map (\<lambda>c. c = CHR 0x0A) code"
proof -
  let ?fake = "masked (is_macro P macros) (source_segments code)"
  have l: "list_all2 (\<lambda>a b. b = a \<or> b = CHR ''$'' \<and> run_byte a) code ?fake"
    using masked_layout[OF segments_runs[of "In_Code None []" code], of "is_macro P macros"]
    by (simp add: source_text)
  then have "map (\<lambda>c. c = CHR 0x0A) ?fake = map (\<lambda>c. c = CHR 0x0A) code"
    by (induction rule: list_all2_induct) (auto simp: run_byte_def is_identifier_part_def ascii_defs)
  with l show ?thesis by (simp add: parser_code_eq)
qed

text \<open>
  Property C26. Comments and literals are copied, whatever names stand in them, and the text behind them is masked
  as if it stood alone: block comments, line comments with their continuation lines, strings and
  character literals with their escapes, and raw strings, with the delimiter the code accepts.
\<close>

theorem parser_code_copies_comments_and_literals:
  assumes "token = ''/*'' @ b @ ''*/'' \<and> \<not> sublist ''*/'' (b @ ''*'') \<or>
     token = ''//'' @ b @ [CHR 0x0A] \<and> line_body b \<or>
     token = CHR 0x22 # b @ [CHR 0x22] \<and> literal_body (CHR 0x22) b \<or>
     token = CHR 0x27 # b @ [CHR 0x27] \<and> literal_body (CHR 0x27) b \<or>
     token = p @ CHR 0x22 # d @ CHR ''('' # b @ CHR '')'' # d @ [CHR 0x22] \<and>
       is_raw_string_prefix p \<and> CHR ''('' \<notin> set d \<and> length d \<le> 16 \<and> raw_body d b"
  shows "parser_code P macros (token @ rest) = map_option (\<lambda>fake. token @ fake) (parser_code P macros rest)"
proof -
  let ?mac = "is_macro P macros"
  have "masked ?mac (source_segments (token @ rest)) = token @ masked ?mac (source_segments rest)"
    using assms
  proof (elim disjE conjE)
    assume t: "token = p @ CHR 0x22 # d @ CHR ''('' # b @ CHR '')'' # d @ [CHR 0x22]"
      and p: "is_raw_string_prefix p" and d: "CHR ''('' \<notin> set d" "length d \<le> 16" "raw_body d b"
    have "c_identifier p" "p \<noteq> []"
      using p by (auto simp: is_raw_string_prefix_def c_identifier_def is_identifier_starter_def
          is_identifier_part_def ascii_defs)
    moreover have "source_segments (token @ rest) = segments (In_Code None p)
        (CHR 0x22 # d @ CHR ''('' # b @ CHR '')'' # d @ CHR 0x22 # rest)"
      using identifier_run[OF \<open>c_identifier p\<close>, of None] by (simp add: t)
    ultimately show ?thesis
      using raw_opening_intro[OF d(1), of "b @ CHR '')'' # d @ CHR 0x22 # rest"] p d
      by (simp add: t segments_raw segment_simps raw_masked CPP_RAW_STRING_DELIM_MAX_def)
  qed (use block_masked[of b ?mac rest] in
      \<open>simp_all add: segments_open segment_simps line_masked string_masked char_masked\<close>)
  then show ?thesis by (simp add: parser_code_eq)
qed

theorem parser_code_copies_comments_and_literals_witness:
  "parser_code (\<lambda>_. False) {''A''} (''/* A */'' @ ''A'') =
     map_option (\<lambda>fake. ''/* A */'' @ fake) (parser_code (\<lambda>_. False) {''A''} ''A'') \<and>
   parser_code (\<lambda>_. False) {''A''} ((''u8R'' @ [CHR 0x22] @ ''x(A)x'' @ [CHR 0x22]) @ ''A'') =
     map_option (\<lambda>fake. (''u8R'' @ [CHR 0x22] @ ''x(A)x'' @ [CHR 0x22]) @ fake)
       (parser_code (\<lambda>_. False) {''A''} ''A'')"
  by (intro conjI parser_code_copies_comments_and_literals[of _ "'' A ''" "[]" "[]"]
      parser_code_copies_comments_and_literals[of _ "''A''" "''u8R''" "''x''"])
     (simp_all add: sublist_Cons_right is_raw_string_prefix_def raw_body_def)

text \<open>Whatever else starts no token is copied.\<close>

lemma parser_code_copies_punctuation:
  assumes "\<not> is_identifier_part c" "c \<noteq> CHR 0x22" "c \<noteq> CHR 0x27"
    "c = CHR ''/'' \<longrightarrow> take 1 rest \<noteq> ''/'' \<and> take 1 rest \<noteq> ''*''"
  shows "parser_code P macros (c # rest) = map_option (\<lambda>fake. c # fake) (parser_code P macros rest)"
proof -
  have "next_number None [] c = None" using assms(1) by (auto simp: next_number_def digit_part)
  then show ?thesis
    using assms starter_part[of c] by (auto simp: parser_code_eq segments_open segment_simps)
qed

lemma parser_code_identifier:
  assumes "c_identifier w" "ends_before rest []" "is_raw_string_prefix w \<longrightarrow> ends_before rest [CHR 0x22]"
  shows "parser_code P macros (w @ rest) =
    map_option (\<lambda>fake. (if w \<in> macros \<or> P w then replicate (length w) (CHR ''$'') else w) @ fake)
      (parser_code P macros rest)"
proof -
  have "source_segments (w @ rest) = Ident w # source_segments rest"
    using identifier_run[OF assms(1), of None rest] run_ends_None[OF _ assms(2,3)] assms(1)
    by (auto simp: c_identifier_def)
  then show ?thesis by (simp add: parser_code_eq segment_simps is_macro_def)
qed

text \<open>
  An identifier is overwritten when it is the name of a macro, one of the set or a
  predefined one, and copied otherwise. What follows is masked as if it stood alone. The prefix of a raw
  string is not such an identifier, nor is it masked.
\<close>

theorem parser_code_masks_identifiers:
  assumes "c_identifier w" "ends_before rest []" "is_raw_string_prefix w \<longrightarrow> ends_before rest [CHR 0x22]"
  shows "parser_code P macros (w @ rest) =
    map_option (\<lambda>fake. (if w \<in> macros \<or> P w then replicate (length w) (CHR ''$'') else w) @ fake)
      (parser_code P macros rest)"
  using assms by (rule parser_code_identifier)

theorem parser_code_masks_identifiers_witness:
  "parser_code (\<lambda>w. w = ''NULL'') {''DBG''} (''DBG'' @ ''(x)'') =
    map_option (\<lambda>fake. (if ''DBG'' \<in> {''DBG''} \<or> ''DBG'' = ''NULL'' then replicate (length ''DBG'') (CHR ''$'')
        else ''DBG'') @ fake)
      (parser_code (\<lambda>w. w = ''NULL'') {''DBG''} ''(x)'')"
  by (rule parser_code_masks_identifiers)
     (simp_all add: c_identifier_def ends_before_def is_identifier_starter_def is_identifier_part_def
       ascii_defs)

text \<open>
  Property C39. Numbers. Digit separators do not open a character literal: a decimal number is copied and the
  text behind it masked as if it stood alone. But the scan for identifiers starts inside the number: a suffix
  such as \<^verbatim>\<open>u\<close>, \<^verbatim>\<open>LL\<close> or \<^verbatim>\<open>e5\<close> with the name of a macro is overwritten, although it is part
  of the preprocessing number and no macro can be expanded there. The parser then sees
  \<^verbatim>\<open>10$\<close> where the source has \<^verbatim>\<open>10u\<close>.
\<close>

theorem parser_code_masks_number_suffix:
  assumes "decimal ds" "w = [] \<or> c_identifier w" "ends_before rest [CHR ''.'', CHR 0x22, CHR 0x27]"
  shows "parser_code P macros (ds @ w @ rest) =
    map_option (\<lambda>fake. ds @ (if w \<noteq> [] \<and> (w \<in> macros \<or> P w)
      then replicate (length w) (CHR ''$'') else w) @ fake) (parser_code P macros rest)"
proof -
  have e: "ends_before rest [CHR ''.'', CHR 0x27]" "ends_before rest [CHR 0x27]" "ends_before rest [CHR 0x22]"
    using assms(3) by (auto simp: ends_before_def split: list.splits)
  have "segments (In_Code num []) (w @ rest) = (if w = [] then [] else [Ident w]) @ source_segments rest" for num
    using assms(2)
  proof
    assume w: "c_identifier w"
    then obtain num' where "segments (In_Code num []) (w @ rest) = segments (In_Code num' w) rest"
      using identifier_run by blast
    then show ?thesis
      using run_ends[OF _ e(2), of w num'] w e number_ends[OF e(1), of num'] by (simp add: c_identifier_def)
  qed (use number_ends[OF e(1), of num] in simp)
  then show ?thesis
    using decimal_segments[OF assms(1), of None "w @ rest"]
    by (auto simp: parser_code_eq segment_simps is_macro_def)
qed

theorem parser_code_masks_number_suffix_witness:
  "parser_code (\<lambda>_. False) {''u''} (''1'' @ [CHR 0x27] @ ''000u + u8'') =
     Some (''1'' @ [CHR 0x27] @ ''000$ + u8'')"
proof -
  have "parser_code (\<lambda>_. False) {''u''} ('' + u8'') = Some ('' + u8'')"
    by code_simp
  then show ?thesis
    using parser_code_masks_number_suffix[of "''1'' @ [CHR 0x27] @ ''000''" "''u''" "'' + u8''"
        "\<lambda>_. False" "{''u''}"]
    by (simp add: c_identifier_def ends_before_def is_identifier_starter_def is_identifier_part_def
        ascii_defs)
qed

end
