(* ===== verification/Visible_Macros.thy ===== *)
theory Visible_Macros
  imports Include_Closure Preproc_Walk C_Macro_Text
begin

text \<open>
  How the parts of the preprocessing join: the files are walked one by one, \<open>fix_includes\<close> adds to
  each the files it includes, and \<open>Parser::new\<close> asks \<open>visible_macros\<close> for the names to mask. The
  properties are stated on the include relation, so they say nothing of the graph, its collapsed
  cycles or the order in which hashed containers are walked: none of it shows in the result.
\<close>

section \<open>The fake code\<close>

text \<open>
  \<open>get_fake_code\<close> and \<open>Parser::new\<close> of \<^verbatim>\<open>parser.rs\<close>. \<open>c_family\<close> says that the language
  is C, C++ or the Mozilla dialect of it, \<open>pr\<close> is the result of the preprocessing, when there is one.
\<close>

definition get_fake_code :: "bool \<Rightarrow> bytes \<Rightarrow> path \<Rightarrow> preproc_files option \<Rightarrow> bytes option option" where
  "get_fake_code c_family code path pr =
     (case pr of
        Some files \<Rightarrow>
          if c_family then replace is_predefined_macros (visible_macros path files) code else Some None
      | None \<Rightarrow> Some None)"

definition Parser_new :: "bool \<Rightarrow> bytes \<Rightarrow> path \<Rightarrow> preproc_files option \<Rightarrow> bytes option" where
  "Parser_new c_family code path pr = do {
     fake_code \<leftarrow> get_fake_code c_family code path pr;
     Some (case fake_code of Some fake \<Rightarrow> fake | None \<Rightarrow> code)
   }"

lemma Parser_new_eq:
  "Parser_new True code path (Some files) = parser_code is_predefined_macros (visible_macros path files) code"
  by (simp add: Parser_new_def get_fake_code_def parser_code_def)

section \<open>Merging\<close>

text \<open>
  \<open>merge_sorted_ids\<close> never panics, and merges two strictly increasing lists into the
  strictly increasing list of the elements of both: an id in both is kept once.
\<close>

theorem merge_sorted_ids_union:
  assumes "sorted_wrt (<) a" "sorted_wrt (<) b"
  shows "merge_sorted_ids a b = Some (sorted_list_of_set (set a \<union> set b))"
proof -
  have "sorted_wrt (<) (union_sorted a b)" using assms by (rule union_sorted_sorted)
  then have "sorted_list_of_set (set (union_sorted a b)) = union_sorted a b"
    by (metis sorted_list_of_set.idem_if_sorted_distinct strict_sorted_iff)
  then show ?thesis by (simp add: merge_sorted_ids_eq set_union_sorted)
qed

theorem merge_sorted_ids_union_witness:
  "merge_sorted_ids [1, 4, 6] [2, 4] = Some (sorted_list_of_set (set [1, 4, 6] \<union> set [2, 4]))"
  by (rule merge_sorted_ids_union) simp_all

section \<open>The include closure\<close>

text \<open>The paths of a project: not empty, spelled as paths are, and the preprocessed ones in UTF-8.\<close>

definition paths_ok :: "preproc_files \<Rightarrow> file_table \<Rightarrow> bool" where
  "paths_ok files all_files \<longleftrightarrow>
     (\<forall>p\<in>dom files. p \<noteq> [] \<and> wf_path p \<and> path_to_str p \<noteq> None) \<and>
     (\<forall>ps\<in>ran all_files. \<forall>p\<in>set ps. p \<noteq> [] \<and> wf_path p)"

lemma included_among: "included all_files f i = Some t \<Longrightarrow> \<exists>ps\<in>ran all_files. t \<in> set ps"
proof -
  assume inc: "included all_files f i = Some t"
  obtain ms where ms: "guess_file f i all_files = Some ms" using guess_file_total by blast
  then have "ms \<noteq> []" "t = Min (set ms)" using inc by (auto simp: included_def split: list.splits)
  then have "t \<in> set ms" by simp
  then show ?thesis using guess_file_among[OF ms] by blast
qed

lemma include_rel_paths:
  assumes "paths_ok files all_files" "(p, q) \<in> (include_rel files all_files)\<^sup>*" "q \<noteq> p"
  shows "q \<noteq> []" "wf_path q"
proof -
  have "q \<in> Range (include_rel files all_files)" using assms(2,3) by (metis Range.intros rtranclE)
  then have "\<exists>ps\<in>ran all_files. q \<in> set ps" by (auto simp: include_rel_def dest: included_among)
  then show "q \<noteq> []" "wf_path q" using assms(1) by (auto simp: paths_ok_def)
qed

lemma fix_includes_eq:
  assumes "petgraph G" "hash_iteration H" "finite_files files" "paths_ok files all_files"
  shows "\<exists>ds. sorted ds \<and> fix_includes G H display files all_files =
    Some (\<lambda>p. map_option (\<lambda>pf. pf\<lparr> indirect_includes :=
        indirect_includes pf \<union> indirect_names (include_rel files all_files) p \<rparr>) (files p), ds)"
proof -
  have "[] \<notin> Range (include_rel files all_files)"
  proof
    assume "[] \<in> Range (include_rel files all_files)"
    then obtain p where "(p, []) \<in> include_rel files all_files" by blast
    moreover from this have "p \<noteq> []" by (auto simp: include_rel_def)
    ultimately show False using include_rel_paths(1)[OF assms(4), of p "[]"] by blast
  qed
  moreover have "[] \<notin> dom files" using assms(4) by (auto simp: paths_ok_def)
  ultimately obtain ds where ds: "fix_includes G H display files all_files =
    Some (\<lambda>p. map_option (\<lambda>pf. pf\<lparr> indirect_includes :=
        indirect_includes pf \<union> indirect_names (include_rel files all_files) p \<rparr>) (files p), ds)"
    using include_run.fix_includes_spec[OF include_run.intro[OF assms(1,2)] assms(3)] by blast
  then have "sorted ds" by (auto simp: fix_includes_def bind_eq_Some_conv)
  then show ?thesis using ds by blast
qed

text \<open>
  Property C6. \<open>fix_includes\<close> never panics, whatever cycles the includes form, and adds to each file
  exactly the names of the files reachable from it by includes, itself among them. The diagnostics come sorted.
\<close>

theorem fix_includes_records_reachable:
  assumes "petgraph G" "hash_iteration H" "finite_files files" "paths_ok files all_files"
  shows "\<exists>files' ds. fix_includes G H display files all_files = Some (files', ds) \<and> sorted ds \<and>
    (\<forall>p. files' p = map_option (\<lambda>pf. pf\<lparr> indirect_includes := indirect_includes pf \<union>
        {s. \<exists>q. (p, q) \<in> (include_rel files all_files)\<^sup>* \<and> path_to_str q = Some s} \<rparr>) (files p))"
  using fix_includes_eq[OF assms, of display] by (fastforce simp: indirect_names_def)

section \<open>Visible macros\<close>

lemma indirect_path:
  assumes "paths_ok files all_files" "p \<in> dom files"
  shows "i \<in> indirect_names (include_rel files all_files) p \<Longrightarrow>
    (p, path_of_str i) \<in> (include_rel files all_files)\<^sup>*"
proof -
  assume "i \<in> indirect_names (include_rel files all_files) p"
  then obtain q where q: "(p, q) \<in> (include_rel files all_files)\<^sup>*" "i = path_str q"
    by (auto simp: indirect_names_def path_to_str_def from_utf8_def split: if_splits)
  have "wf_path q"
    using include_rel_paths(2)[OF assms(1) q(1)] assms by (cases "q = p") (auto simp: paths_ok_def)
  then show ?thesis using q by (simp add: path_of_str_path_str)
qed

definition reachable_macros :: "preproc_files \<Rightarrow> file_table \<Rightarrow> path \<Rightarrow> string set" where
  "reachable_macros files all_files f =
     {m. \<exists>q pf. (f, q) \<in> (include_rel files all_files)\<^sup>* \<and> files q = Some pf \<and> m \<in> macros pf}"

lemma visible_macros_reachable:
  assumes ok: "paths_ok files all_files" and fresh: "\<forall>pf\<in>ran files. indirect_includes pf = {}"
    and files': "\<forall>p. files' p = map_option (\<lambda>pf. pf\<lparr> indirect_includes :=
      indirect_includes pf \<union> indirect_names (include_rel files all_files) p \<rparr>) (files p)"
  shows "visible_macros f files' = reachable_macros files all_files f"
proof (cases "files f")
  case None
  then have "q = f" if "(f, q) \<in> (include_rel files all_files)\<^sup>*" for q
    using that by (auto simp: include_rel_def elim: converse_rtranclE)
  then show ?thesis using None files' by (fastforce simp: visible_macros_def reachable_macros_def)
next
  case (Some pf)
  let ?R = "include_rel files all_files"
  have ind: "files' f = Some (pf\<lparr> indirect_includes := indirect_names ?R f \<rparr>)"
    using Some files' fresh by (auto simp: ran_def)
  have fdom: "f \<in> dom files" using Some by blast
  have mac: "(case files' q of None \<Rightarrow> {} | Some i \<Rightarrow> macros i) =
      (case files q of None \<Rightarrow> {} | Some i \<Rightarrow> macros i)" for q
    using files' by (cases "files q") auto
  have "visible_macros f files' = macros pf \<union>
      (\<Union>i\<in>indirect_names ?R f. case files (path_of_str i) of None \<Rightarrow> {} | Some i \<Rightarrow> macros i)"
    by (simp add: visible_macros_def ind mac)
  also have "\<dots> = reachable_macros files all_files f"
  proof (intro equalityI subsetI)
    fix m assume "m \<in> macros pf \<union>
        (\<Union>i\<in>indirect_names ?R f. case files (path_of_str i) of None \<Rightarrow> {} | Some i \<Rightarrow> macros i)"
    then show "m \<in> reachable_macros files all_files f"
      using Some indirect_path[OF ok fdom]
      by (auto simp: reachable_macros_def split: option.splits)
  next
    fix m assume "m \<in> reachable_macros files all_files f"
    then obtain q qf where q: "(f, q) \<in> ?R\<^sup>*" "files q = Some qf" "m \<in> macros qf"
      by (auto simp: reachable_macros_def)
    then have "wf_path q" "path_to_str q \<noteq> None" using ok by (auto simp: paths_ok_def)
    then obtain s where s: "path_to_str q = Some s" "wf_path q" by blast
    then have "s = path_str q" by (simp add: path_to_str_def from_utf8_def split: if_splits)
    then have "path_of_str s = q" using s(2) by (simp add: path_of_str_path_str)
    moreover have "s \<in> indirect_names ?R f" using q(1) s(1) by (auto simp: indirect_names_def)
    ultimately show "m \<in> macros pf \<union>
        (\<Union>i\<in>indirect_names ?R f. case files (path_of_str i) of None \<Rightarrow> {} | Some i \<Rightarrow> macros i)"
      using q by force
  qed
  finally show ?thesis .
qed

text \<open>
  After \<open>fix_includes\<close>, the macros visible to a file are its own and those of every
  preprocessed file it includes, directly or through other files, and no others; a file that is not
  preprocessed sees none.
\<close>

theorem visible_macros_correct:
  assumes "petgraph G" "hash_iteration H" "finite_files files" "paths_ok files all_files"
    and "\<forall>pf\<in>ran files. indirect_includes pf = {}"
  shows "\<exists>files' ds. fix_includes G H display files all_files = Some (files', ds) \<and>
    (\<forall>f. visible_macros f files' =
      {m. \<exists>q pf. (f, q) \<in> (include_rel files all_files)\<^sup>* \<and> files q = Some pf \<and> m \<in> macros pf})"
proof -
  obtain files' ds where f: "fix_includes G H display files all_files = Some (files', ds)"
      "\<forall>p. files' p = map_option (\<lambda>pf. pf\<lparr> indirect_includes :=
        indirect_includes pf \<union> indirect_names (include_rel files all_files) p \<rparr>) (files p)"
    using fix_includes_eq[OF assms(1-4), of display] by fastforce
  have "visible_macros p files' = reachable_macros files all_files p" for p
    by (rule visible_macros_reachable[OF assms(4,5) f(2)])
  then show ?thesis using f(1) unfolding reachable_macros_def by blast
qed

text \<open>Two headers that include each other, and a file that includes one of them.\<close>

definition cycle_files :: preproc_files where
  "cycle_files = [[Normal ''a.h''] \<mapsto> \<lparr> direct_includes = {''b.h''}, indirect_includes = {}, macros = {''A''} \<rparr>,
     [Normal ''b.h''] \<mapsto> \<lparr> direct_includes = {''a.h''}, indirect_includes = {}, macros = {''B''} \<rparr>,
     [Normal ''f.c''] \<mapsto> \<lparr> direct_includes = {''a.h''}, indirect_includes = {}, macros = {} \<rparr>]"

definition cycle_table :: file_table where
  "cycle_table = [''a.h'' \<mapsto> [[Normal ''a.h'']], ''b.h'' \<mapsto> [[Normal ''b.h'']]]"

lemma cycle_ok: "finite_files cycle_files" "paths_ok cycle_files cycle_table"
  "\<forall>pf\<in>ran cycle_files. indirect_includes pf = {}"
  by (auto simp: finite_files_def paths_ok_def cycle_files_def cycle_table_def ran_def wf_path_def
      path_to_str_def path_str_def from_utf8_def split: if_splits)

lemma cycle_rel: "include_rel cycle_files cycle_table =
  {([Normal ''a.h''], [Normal ''b.h'']), ([Normal ''b.h''], [Normal ''a.h'']), ([Normal ''f.c''], [Normal ''a.h''])}"
proof -
  have "guess_file [Normal ''a.h''] ''b.h'' cycle_table = Some [[Normal ''b.h'']]"
    "guess_file [Normal ''b.h''] ''a.h'' cycle_table = Some [[Normal ''a.h'']]"
    "guess_file [Normal ''f.c''] ''a.h'' cycle_table = Some [[Normal ''a.h'']]"
    by code_simp+
  then show ?thesis
    by (auto simp: include_rel_def included_def cycle_files_def split: if_splits)
qed

theorem fix_includes_records_reachable_witness:
  "\<exists>files' ds. fix_includes list_petgraph sorted_order path_str cycle_files cycle_table = Some (files', ds) \<and> sorted ds \<and>
    (\<forall>p. files' p = map_option (\<lambda>pf. pf\<lparr> indirect_includes := indirect_includes pf \<union>
        {s. \<exists>q. (p, q) \<in> (include_rel cycle_files cycle_table)\<^sup>* \<and> path_to_str q = Some s} \<rparr>) (cycle_files p))"
  by (rule fix_includes_records_reachable[OF lg.petgraph_axioms sorted_order.hash_iteration_axioms cycle_ok(1,2)])

theorem visible_macros_correct_witness:
  "\<exists>files' ds. fix_includes list_petgraph sorted_order path_str cycle_files cycle_table = Some (files', ds) \<and>
    visible_macros [Normal ''f.c''] files' = {''A'', ''B''}"
proof -
  define R where "R = include_rel cycle_files cycle_table"
  have fa: "([Normal ''f.c''], [Normal ''a.h'']) \<in> R\<^sup>*"
    by (rule r_into_rtrancl) (simp add: R_def cycle_rel)
  have fb: "([Normal ''f.c''], [Normal ''b.h'']) \<in> R\<^sup>*"
    by (rule rtrancl_into_rtrancl[OF fa]) (simp add: R_def cycle_rel)
  let ?M = "{m. \<exists>q pf. ([Normal ''f.c''], q) \<in> R\<^sup>* \<and> cycle_files q = Some pf \<and> m \<in> macros pf}"
  have "\<forall>q pf. cycle_files q = Some pf \<longrightarrow> macros pf \<subseteq> {''A'', ''B''}"
    by (simp add: cycle_files_def)
  then have "?M \<subseteq> {''A'', ''B''}" by blast
  moreover have "''A'' \<in> ?M"
    by (rule CollectI, rule exI[of _ "[Normal ''a.h'']"]) (simp add: fa, simp add: cycle_files_def)
  moreover have "''B'' \<in> ?M"
    by (rule CollectI, rule exI[of _ "[Normal ''b.h'']"]) (simp add: fb, simp add: cycle_files_def)
  ultimately have "?M = {''A'', ''B''}" by blast
  moreover obtain files' ds where
    "fix_includes list_petgraph sorted_order path_str cycle_files cycle_table = Some (files', ds)"
    "\<forall>f. visible_macros f files' = {m. \<exists>q pf. (f, q) \<in> R\<^sup>* \<and> cycle_files q = Some pf \<and> m \<in> macros pf}"
    using visible_macros_correct[OF lg.petgraph_axioms sorted_order.hash_iteration_axioms cycle_ok, of path_str,
        folded R_def]
    by (elim exE conjE) (rule that)
  ultimately show ?thesis by simp
qed

section \<open>From the sources to the masked text\<close>

text \<open>A project: the files, each with its text and the tree the preprocessor grammar gave for it.\<close>

type_synonym project = "(path \<times> syntax_node \<times> bytes) list"

definition preprocess_all :: "project \<Rightarrow> preproc_files \<Rightarrow> preproc_files option" where
  "preprocess_all project = for_each (\<lambda>(path, root, code). preprocess_with_parser root code path) project"

definition project_ok :: "project \<Rightarrow> bool" where
  "project_ok project \<longleftrightarrow> distinct (map fst project) \<and>
     (\<forall>(path, root, code)\<in>set project. tree_of code root \<and> one_per_offset (directives code root) \<and>
        path \<noteq> [] \<and> wf_path path \<and> path_to_str path \<noteq> None)"

definition walked :: "syntax_node \<times> bytes \<Rightarrow> PreprocFile" where
  "walked = (\<lambda>(root, code). \<lparr> direct_includes = quoted_includes code root, indirect_includes = {},
     macros = last_defined (directives code root) \<rparr>)"

definition walked_files :: "project \<Rightarrow> preproc_files" where
  "walked_files project = (\<lambda>p. map_option walked (map_of project p))"

lemma finite_quoted_includes: "finite (quoted_includes code root)"
proof -
  have "finite (subnodes root)" by (induction root) auto
  moreover have "quoted_includes code root \<subseteq> (\<lambda>n. the (include_of code n)) ` subnodes root"
    by (force simp: quoted_includes_def)
  ultimately show ?thesis by (metis finite_imageI finite_subset)
qed

lemma preprocess_all_eq:
  "project_ok project \<Longrightarrow> preprocess_all project files =
    Some (\<lambda>p. case map_of project p of None \<Rightarrow> files p | Some n \<Rightarrow> Some (walked n))"
proof (induction project arbitrary: files)
  case (Cons x project)
  obtain p root code where x: "x = (p, root, code)" by (cases x)
  have ok: "tree_of code root" "one_per_offset (directives code root)" "project_ok project" "p \<notin> fst ` set project"
    using Cons.prems by (auto simp: project_ok_def x)
  have "map_of project p = None" using ok(4) by (simp add: map_of_eq_None_iff)
  then show ?case
    using Cons.IH[OF ok(3)] preprocess_with_parser_eq[OF ok(1,2), of p files]
    by (auto simp: preprocess_all_def x walked_def fun_eq_iff split: option.split)
qed (simp add: preprocess_all_def)

lemma walked_files_ok:
  assumes "project_ok project" "\<forall>ps\<in>ran all_files. \<forall>p\<in>set ps. p \<noteq> [] \<and> wf_path p"
  shows "finite_files (walked_files project)" "paths_ok (walked_files project) all_files"
    "\<forall>pf\<in>ran (walked_files project). indirect_includes pf = {}"
proof -
  have "dom (walked_files project) = dom (map_of project)" by (auto simp: walked_files_def dom_def)
  then show "finite_files (walked_files project)"
    by (auto simp: finite_files_def finite_dom_map_of walked_files_def walked_def ran_def finite_quoted_includes)
  show "paths_ok (walked_files project) all_files"
    using assms by (auto simp: paths_ok_def project_ok_def walked_files_def dest!: map_of_SomeD)
  show "\<forall>pf\<in>ran (walked_files project). indirect_includes pf = {}"
    by (auto simp: walked_files_def walked_def ran_def)
qed

text \<open>
  Property C5. The whole way, from the trees of the files to the text the C++ parser reads: in
  every file of the project an identifier is masked exactly when it is a predefined name or some
  file that the file includes, directly or not, or the file itself, has a definition of it as its
  last directive for it. No step on the way panics.
\<close>

theorem macro_masked_iff_defined:
  assumes "petgraph G" "hash_iteration H" "project_ok project"
    and "\<forall>ps\<in>ran all_files. \<forall>p\<in>set ps. p \<noteq> [] \<and> wf_path p"
    and "c_identifier w" "ends_before rest []" "is_raw_string_prefix w \<longrightarrow> ends_before rest [CHR 0x22]"
  shows "\<exists>files files' ds. preprocess_all project Map.empty = Some files \<and>
    fix_includes G H display files all_files = Some (files', ds) \<and>
    Parser_new True (w @ rest) f (Some files') = map_option (\<lambda>fake.
      (if w \<in> set PREDEFINED_MACROS \<or>
          (\<exists>q root code. (f, q) \<in> (include_rel files all_files)\<^sup>* \<and> (q, root, code) \<in> set project \<and>
             w \<in> last_defined (directives code root))
       then replicate (length w) (CHR ''$'') else w) @ fake)
      (Parser_new True rest f (Some files'))"
proof -
  let ?files = "walked_files project"
  note ok = walked_files_ok[OF assms(3,4)]
  have pre: "preprocess_all project Map.empty = Some ?files"
    using preprocess_all_eq[OF assms(3), of Map.empty]
    by (simp add: walked_files_def fun_eq_iff split: option.split)
  obtain files' ds where run: "fix_includes G H display ?files all_files = Some (files', ds)"
      and f: "\<forall>p. files' p = map_option (\<lambda>pf. pf\<lparr> indirect_includes :=
        indirect_includes pf \<union> indirect_names (include_rel ?files all_files) p \<rparr>) (?files p)"
    using fix_includes_eq[OF assms(1,2) ok(1,2), of display] by fastforce
  have look: "?files q = Some pf \<longleftrightarrow> (\<exists>root code. (q, root, code) \<in> set project \<and> pf = walked (root, code))" for q pf
    using assms(3) by (auto simp: walked_files_def project_ok_def)
  have "visible_macros f files' = reachable_macros ?files all_files f"
    by (rule visible_macros_reachable[OF ok(2,3) f])
  then have "w \<in> visible_macros f files' \<longleftrightarrow>
      (\<exists>q root code. (f, q) \<in> (include_rel ?files all_files)\<^sup>* \<and> (q, root, code) \<in> set project \<and>
         w \<in> last_defined (directives code root))"
    unfolding reachable_macros_def by (fastforce simp: look walked_def)
  then show ?thesis
    using pre run parser_code_identifier[OF assms(5-7), of is_predefined_macros "visible_macros f files'"]
    by (simp add: Parser_new_eq predefined_mem disj_commute)
qed

text \<open>A header with one definition, and a file that includes it.\<close>

definition demo_project :: project where
  "demo_project = [([Normal ''a.h''], Syntax_Node 22 0 9 [Syntax_Node 25 0 9 [Syntax_Node 1 8 9 []]], ''#define A''),
     ([Normal ''f.c''], Syntax_Node 22 0 14 [Syntax_Node 24 0 14 [Syntax_Node 31 9 14 []]],
       ''#include '' @ [CHR 0x22] @ ''a.h'' @ [CHR 0x22])]"

lemma demo_ok: "project_ok demo_project"
proof -
  have "directives ''#define A'' (Syntax_Node 22 0 9 [Syntax_Node 25 0 9 [Syntax_Node 1 8 9 []]]) \<subseteq> {(8, Define ''A'')}"
    by (auto simp: directives_def directive_of_def first_child_def kind_ids
        utf8_text_def slice_def from_utf8_def Let_def split: option.splits if_splits)
  moreover have "directives code (Syntax_Node 22 0 14 [Syntax_Node 24 0 14 [Syntax_Node 31 9 14 []]]) \<subseteq> {}" for code
    by (auto simp: directives_def directive_of_def first_child_def kind_ids)
  moreover have "one_per_offset {(8, Define ''A'')}" "one_per_offset {}" by (simp_all add: one_per_offset_def)
  ultimately have "one_per_offset (directives ''#define A'' (Syntax_Node 22 0 9 [Syntax_Node 25 0 9 [Syntax_Node 1 8 9 []]]))"
    "one_per_offset (directives code (Syntax_Node 22 0 14 [Syntax_Node 24 0 14 [Syntax_Node 31 9 14 []]]))" for code
    using one_per_offset_mono by blast+
  then show ?thesis
    by (simp add: project_ok_def demo_project_def tree_of_def wf_path_def path_to_str_def path_str_def from_utf8_def)
qed

theorem macro_masked_iff_defined_witness:
  "\<exists>files files' ds. preprocess_all demo_project Map.empty = Some files \<and>
    fix_includes list_petgraph sorted_order path_str files cycle_table = Some (files', ds) \<and>
    Parser_new True (''A'' @ ''(x)'') [Normal ''f.c''] (Some files') = map_option (\<lambda>fake.
      (if ''A'' \<in> set PREDEFINED_MACROS \<or>
          (\<exists>q root code. ([Normal ''f.c''], q) \<in> (include_rel files cycle_table)\<^sup>* \<and>
             (q, root, code) \<in> set demo_project \<and> ''A'' \<in> last_defined (directives code root))
       then replicate (length ''A'') (CHR ''$'') else ''A'') @ fake)
      (Parser_new True ''(x)'' [Normal ''f.c''] (Some files'))"
proof (rule macro_masked_iff_defined[OF lg.petgraph_axioms sorted_order.hash_iteration_axioms demo_ok])
  show "\<forall>ps\<in>ran cycle_table. \<forall>p\<in>set ps. p \<noteq> [] \<and> wf_path p"
    using cycle_ok(2) by (simp add: paths_ok_def)
qed (simp_all add: c_identifier_def ends_before_def is_identifier_starter_def is_identifier_part_def ascii_defs)

end
