(* ===== verification/Comment_Rm.thy ===== *)
theory Comment_Rm
  imports Rust_Bytes
begin

text \<open>
  Comment removal, \<^verbatim>\<open>comment_rm.rs\<close>: a walk over the tree collects the spans of the comments,
  and the source is copied without them but with their line breaks. What the walk reads of a node is
  its kind, its span, its rows and its children; what it asks the language
  (\<^verbatim>\<open>Checker\<close>) is a parameter. \<^term>\<open>None\<close> is a panic.
\<close>

section \<open>The tree\<close>

datatype tree_node =
  Tree_Node (node_kind: nat) (node_start: nat) (node_end: nat) (start_row: nat) (end_row: nat)
    (node_children: "tree_node list")

text \<open>
  What a language says of comments. \<^verbatim>\<open>is_useful_comment\<close> gets the chain of ancestors, root
  first, and may index the source.
\<close>

record comment_checker =
  is_comment :: "tree_node \<Rightarrow> bool"
  is_useful_comment :: "tree_node \<Rightarrow> bytes \<Rightarrow> tree_node list \<Rightarrow> bool option"

section \<open>Line endings\<close>

abbreviation LF :: char where "LF \<equiv> CHR 0x0A"
abbreviation CR :: char where "CR \<equiv> CHR 0x0D"

definition NEWLINE_FAST_PATH_LEN :: nat where "NEWLINE_FAST_PATH_LEN = 8192"

definition LF_NEWLINES :: bytes where "LF_NEWLINES = replicate NEWLINE_FAST_PATH_LEN LF"

text \<open>The loop that fills the second buffer.\<close>

function fill_lf :: "bytes \<Rightarrow> nat \<Rightarrow> bytes" where
  "fill_lf buf i = (if i < length buf then fill_lf (buf[i := LF]) (i + 2) else buf)"
  by pat_completeness auto
termination by (relation "measure (\<lambda>(buf, i). length buf - i)") auto

declare fill_lf.simps [simp del]

definition CRLF_NEWLINES :: bytes where
  "CRLF_NEWLINES = fill_lf (replicate (2 * NEWLINE_FAST_PATH_LEN) CR) 1"

datatype LineEnding = Lf | Crlf

definition detect :: "bytes \<Rightarrow> LineEnding option" where
  "detect code = (case position (\<lambda>b. b = LF) code of
     Some nl \<Rightarrow>
       if nl > 0 then do { b \<leftarrow> byte_at code (nl - 1); Some (if b = CR then Crlf else Lf) }
       else Some Lf
   | None \<Rightarrow> Some Lf)"

text \<open>\<^verbatim>\<open>Vec::resize\<close>.\<close>

definition vec_resize :: "'a list \<Rightarrow> nat \<Rightarrow> 'a \<Rightarrow> 'a list" where
  "vec_resize xs n x = take n xs @ replicate (n - length xs) x"

definition extend_newlines :: "LineEnding \<Rightarrow> bytes \<Rightarrow> nat \<Rightarrow> bytes option" where
  "extend_newlines ending out lines = (case ending of
     Lf \<Rightarrow>
       if lines \<le> NEWLINE_FAST_PATH_LEN then do { s \<leftarrow> slice LF_NEWLINES 0 lines; Some (out @ s) }
       else Some (vec_resize out (length out + lines) LF)
   | Crlf \<Rightarrow>
       if lines \<le> NEWLINE_FAST_PATH_LEN then do { s \<leftarrow> slice CRLF_NEWLINES 0 (2 * lines); Some (out @ s) }
       else for_each (\<lambda>_ out. Some (out @ [CR, LF])) [0..<lines] out)"

section \<open>Removing spans\<close>

definition remove_span ::
  "bytes \<Rightarrow> LineEnding \<Rightarrow> nat \<times> nat \<times> nat \<Rightarrow> bytes \<times> nat \<Rightarrow> (bytes \<times> nat) option" where
  "remove_span code line_ending = (\<lambda>(start, stop, lines) (new_code, code_start). do {
     s \<leftarrow> slice code code_start start;
     let new_code = new_code @ s;
     new_code \<leftarrow> (if lines \<noteq> 0 then extend_newlines line_ending new_code lines else Some new_code);
     b \<leftarrow> (if stop > start then do { i \<leftarrow> usize_sub stop 1; map_option (\<lambda>b. b = CR) (byte_at code i) }
           else Some False);
     Some (if b \<and> byte_at code stop = Some LF then new_code @ [CR] else new_code, stop)
   })"

definition remove_from_code :: "bytes \<Rightarrow> (nat \<times> nat \<times> nat) list \<Rightarrow> bytes option" where
  "remove_from_code code spans = do {
     line_ending \<leftarrow> detect code;
     (new_code, code_start) \<leftarrow> for_each (remove_span code line_ending) (rev spans) ([], 0);
     if code_start < length code then do { s \<leftarrow> slice code code_start (length code); Some (new_code @ s) }
     else Some new_code
   }"

text \<open>
  The loop of \<^verbatim>\<open>rm_comments\<close>. The stack's top is the head of the list, so the children are
  pushed reversed; \<open>chain\<close> is the path to the node visited.
\<close>

lemma size_node_children: "sum_list (map size (node_children n)) < size n"
proof (cases n)
  case (Tree_Node k a b r s cs)
  have "sum_list (map size cs) \<le> size_list size cs" by (induction cs) auto
  then show ?thesis by (simp add: Tree_Node)
qed

lemma size_node_pos: "0 < size (n :: tree_node)"
  by (cases n) simp

function (sequential) comment_walk ::
  "comment_checker \<Rightarrow> bytes \<Rightarrow> (tree_node \<times> nat) list \<Rightarrow> tree_node list \<Rightarrow> (nat \<times> nat \<times> nat) list \<Rightarrow>
    (nat \<times> nat \<times> nat) list option" where
  "comment_walk T code [] chain spans = Some spans"
| "comment_walk T code ((node, depth) # stack) chain spans = (
     let chain = take depth chain in do {
       comment \<leftarrow> (if is_comment T node
                   then map_option Not (is_useful_comment T node code chain) else Some False);
       if comment then do {
         lines \<leftarrow> usize_sub (end_row node) (start_row node);
         comment_walk T code stack chain (spans @ [(node_start node, node_end node, lines)])
       } else
         comment_walk T code (map (\<lambda>child. (child, depth + 1)) (rev (node_children node)) @ stack)
           (if node_children node = [] then chain else chain @ [node]) spans
     })"
  by pat_completeness auto

termination comment_walk
  by (relation "measure (\<lambda>(T, code, stack, chain, spans). sum_list (map (size \<circ> fst) stack))")
     (use size_node_children size_node_pos in \<open>auto simp: rev_map[symmetric] sum_list_rev comp_def\<close>)

definition rm_comments :: "comment_checker \<Rightarrow> tree_node \<Rightarrow> bytes \<Rightarrow> bytes option option" where
  "rm_comments T root code = do {
     spans \<leftarrow> comment_walk T code [(root, 0)] [] [];
     if spans \<noteq> [] then do { new_code \<leftarrow> remove_from_code code spans; Some (Some new_code) }
     else Some None
   }"

text \<open>
  The comment grammar's answers, \<^verbatim>\<open>checker/ccomment.rs\<close>; the string search of
  \<^verbatim>\<open>AhoCorasick\<close> is a parameter. A comment with its needle is kept.
\<close>

definition Ccomment_Comment :: nat where "Ccomment_Comment = 7"

definition get_aho_corasick_match :: "(bytes list \<Rightarrow> bytes \<Rightarrow> bool) \<Rightarrow> bytes \<Rightarrow> bool" where
  "get_aho_corasick_match is_match code = is_match [''<div rustbindgen''] code"

definition CcommentCode :: "(bytes list \<Rightarrow> bytes \<Rightarrow> bool) \<Rightarrow> comment_checker" where
  "CcommentCode is_match = \<lparr>
     is_comment = (\<lambda>node. node_kind node = Ccomment_Comment),
     is_useful_comment = (\<lambda>node code ancestors. do {
       text \<leftarrow> slice code (node_start node) (node_end node);
       Some (get_aho_corasick_match is_match text)
     }) \<rparr>"

section \<open>The copy\<close>

definition newline :: "LineEnding \<Rightarrow> bytes" where
  "newline ending = (case ending of Lf \<Rightarrow> [LF] | Crlf \<Rightarrow> [CR, LF])"

lemma length_fill_lf [simp]: "length (fill_lf buf i) = length buf"
  by (induction buf i rule: fill_lf.induct) (subst fill_lf.simps, simp)

lemma nth_fill_lf:
  "j < length buf \<Longrightarrow> fill_lf buf i ! j = (if i \<le> j \<and> even (j - i) then LF else buf ! j)"
proof (induction buf i rule: fill_lf.induct)
  case (1 buf i)
  show ?case
  proof (cases "i < length buf")
    case True
    have "i \<le> j \<and> even (j - i) \<longleftrightarrow> j = i \<or> i + 2 \<le> j \<and> even (j - (i + 2))"
      by (cases "i \<le> j"; cases "j = i"; cases "j = i + 1") (auto simp: even_diff_nat)
    then show ?thesis
      using 1 True by (subst fill_lf.simps) (auto simp: nth_list_update)
  qed (use 1 in \<open>subst fill_lf.simps; simp\<close>)
qed

lemma length_pairs: "length (concat (replicate n [CR, LF])) = 2 * n"
  by (induction n) auto

lemma nth_pairs: "j < 2 * n \<Longrightarrow> concat (replicate n [CR, LF]) ! j = (if even j then CR else LF)"
proof (induction n arbitrary: j)
  case (Suc n)
  then show ?case by (cases j; cases "j - 1") auto
qed simp

lemma CRLF_NEWLINES_prefix:
  assumes "n \<le> NEWLINE_FAST_PATH_LEN"
  shows "slice CRLF_NEWLINES 0 (2 * n) = Some (concat (replicate n [CR, LF]))"
proof -
  have "take (2 * n) CRLF_NEWLINES = concat (replicate n [CR, LF])"
  proof (rule nth_equalityI)
    fix j
    assume "j < length (take (2 * n) CRLF_NEWLINES)"
    then have j: "j < 2 * n" "j < 2 * NEWLINE_FAST_PATH_LEN" using assms by auto
    then show "take (2 * n) CRLF_NEWLINES ! j = concat (replicate n [CR, LF]) ! j"
      by (cases j) (auto simp: CRLF_NEWLINES_def nth_fill_lf nth_pairs)
  qed (use assms in \<open>simp add: CRLF_NEWLINES_def length_pairs\<close>)
  then show ?thesis using assms by (simp add: CRLF_NEWLINES_def span_def)
qed

lemma extend_newlines_eq:
  "extend_newlines ending out n = Some (out @ concat (replicate n (newline ending)))"
proof (cases ending)
  case Lf
  have c: "concat (replicate n [LF]) = replicate n LF" by (induction n) auto
  have "n \<le> NEWLINE_FAST_PATH_LEN \<Longrightarrow> slice LF_NEWLINES 0 n = Some (replicate n LF)"
    by (simp add: LF_NEWLINES_def span_def min_def)
  then show ?thesis by (auto simp: Lf extend_newlines_def newline_def vec_resize_def c)
next
  case Crlf
  have "for_each (\<lambda>_ out. Some (out @ [CR, LF])) xs out =
      Some (out @ concat (replicate (length xs) [CR, LF]))" for xs :: "nat list"
    by (induction xs arbitrary: out) auto
  then show ?thesis by (simp add: Crlf extend_newlines_def newline_def CRLF_NEWLINES_prefix)
qed

text \<open>A text whose line breaks are all of one kind.\<close>

definition crlf_text :: "bytes \<Rightarrow> bool" where
  "crlf_text code \<longleftrightarrow>
     (\<forall>i<length code. code ! i = LF \<longleftrightarrow> 0 < i \<and> code ! (i - 1) = CR) \<and> (code \<noteq> [] \<longrightarrow> last code \<noteq> CR)"

definition uniform_endings :: "bytes \<Rightarrow> bool" where
  "uniform_endings code \<longleftrightarrow> CR \<notin> set code \<or> crlf_text code"

lemma detect_Some: "\<exists>ending. detect code = Some ending"
proof (cases "position (\<lambda>b. b = LF) code")
  case (Some nl)
  then have "nl < length code" by (auto simp: position_def Let_def split: if_splits)
  then show ?thesis by (auto simp: detect_def Some)
qed (simp add: detect_def)

lemma position_first:
  assumes "position f xs = Some n"
  shows "n < length xs" "f (xs ! n)"
  using assms nth_length_takeWhile[of "\<lambda>x. \<not> f x" xs] by (auto simp: position_def Let_def split: if_splits)

lemma detect_Lf: "CR \<notin> set code \<Longrightarrow> detect code = Some Lf"
  using position_first(1)[of "\<lambda>b. b = LF" code]
  by (auto simp: detect_def split: option.splits dest!: position_first(1)) (metis less_imp_diff_less nth_mem)

lemma detect_Crlf:
  assumes "crlf_text code" "LF \<in> set code"
  shows "detect code = Some Crlf"
proof -
  obtain nl where nl: "position (\<lambda>b. b = LF) code = Some nl"
    using assms(2) by (auto simp: position_split split: if_splits)
  then have "nl < length code" "code ! nl = LF" by (auto dest: position_first)
  then have "0 < nl" "code ! (nl - 1) = CR" using assms(1) by (auto simp: crlf_text_def)
  then show ?thesis using \<open>nl < length code\<close> by (simp add: detect_def nl)
qed

text \<open>The spans, left to right, lie one after the other between two positions.\<close>

fun ordered :: "nat \<Rightarrow> (nat \<times> nat \<times> nat) list \<Rightarrow> nat \<Rightarrow> bool" where
  "ordered a [] b \<longleftrightarrow> a \<le> b"
| "ordered a ((s, t, n) # spans) b \<longleftrightarrow> a \<le> s \<and> s \<le> t \<and> ordered t spans b"

text \<open>What replaces a span, and the copy.\<close>

definition kept_cr :: "bytes \<Rightarrow> nat \<Rightarrow> nat \<Rightarrow> bytes" where
  "kept_cr code s t =
     (if s < t \<and> t < length code \<and> code ! (t - 1) = CR \<and> code ! t = LF then [CR] else [])"

fun cut :: "LineEnding \<Rightarrow> bytes \<Rightarrow> nat \<Rightarrow> (nat \<times> nat \<times> nat) list \<Rightarrow> bytes" where
  "cut ending code a [] = drop a code"
| "cut ending code a ((s, t, n) # spans) =
     span code a s @ concat (replicate n (newline ending)) @ kept_cr code s t @ cut ending code t spans"

lemma ordered_le: "ordered a spans b \<Longrightarrow> a \<le> b"
  by (induction a spans b rule: ordered.induct) auto

lemma remove_span_eq:
  assumes "a \<le> s" "s \<le> t" "t \<le> length code"
  shows "remove_span code ending (s, t, n) (out, a) =
    Some (out @ span code a s @ concat (replicate n (newline ending)) @ kept_cr code s t, t)"
  using assms
  by (auto simp: remove_span_def extend_newlines_eq kept_cr_def byte_at_def Let_def)

lemma remove_spans_eq:
  "\<lbrakk> ordered a spans b; b \<le> length code \<rbrakk> \<Longrightarrow>
    \<exists>out' a'. for_each (remove_span code ending) spans (out, a) = Some (out', a') \<and>
      a' \<le> length code \<and> out' @ drop a' code = out @ cut ending code a spans"
proof (induction a spans b arbitrary: out rule: ordered.induct)
  case (2 a s t n spans b)
  moreover from 2 have "t \<le> b" by (auto dest: ordered_le)
  ultimately show ?case using 2(1) by (fastforce simp: remove_span_eq)
qed auto

lemma remove_from_code_eq:
  assumes "ordered 0 spans (length code)" "detect code = Some ending"
  shows "remove_from_code code (rev spans) = Some (cut ending code 0 spans)"
proof -
  obtain out a where "for_each (remove_span code ending) spans ([], 0) = Some (out, a)"
    "a \<le> length code" "out @ drop a code = cut ending code 0 spans"
    using remove_spans_eq[OF assms(1) order_refl, of ending "[]"] by auto
  then show ?thesis using assms(2) by (auto simp: remove_from_code_def span_all)
qed

section \<open>Bytes that stay\<close>

text \<open>
  The reference: every byte outside the comments stays, and of the bytes inside them those that
  satisfy \<open>P\<close>.
\<close>

definition covered :: "(nat \<times> nat \<times> nat) list \<Rightarrow> nat \<Rightarrow> bool" where
  "covered spans i \<longleftrightarrow> (\<exists>(s, t, n)\<in>set spans. s \<le> i \<and> i < t)"

definition blanked :: "(char \<Rightarrow> bool) \<Rightarrow> bytes \<Rightarrow> (nat \<times> nat \<times> nat) list \<Rightarrow> nat \<Rightarrow> bytes" where
  "blanked P code spans a =
     map ((!) code) (filter (\<lambda>i. \<not> covered spans i \<or> P (code ! i)) [a..<length code])"

definition line_breaks :: "bytes \<Rightarrow> nat" where
  "line_breaks xs = length (filter (\<lambda>c. c = LF) xs)"

lemma line_breaks_simps [simp]:
  "line_breaks [] = 0" "line_breaks (c # xs) = (if c = LF then Suc (line_breaks xs) else line_breaks xs)"
  "line_breaks (xs @ ys) = line_breaks xs + line_breaks ys"
  by (auto simp: line_breaks_def)

lemma not_covered_before: "\<lbrakk> ordered a spans b; i < a \<rbrakk> \<Longrightarrow> \<not> covered spans i"
  by (induction a spans b rule: ordered.induct) (auto simp: covered_def)

lemma filter_span:
  "\<lbrakk> a \<le> t; t \<le> length code \<rbrakk> \<Longrightarrow> map ((!) code) (filter (\<lambda>i. P (code ! i)) [a..<t]) = filter P (span code a t)"
  by (simp add: span_map_nth filter_map comp_def)

lemma blanked_Nil: "blanked P code [] a = drop a code"
  by (simp add: blanked_def covered_def span_map_nth[symmetric] span_all)

lemma blanked_Cons:
  assumes "ordered a ((s, t, n) # spans) (length code)"
  shows "blanked P code ((s, t, n) # spans) a =
    span code a s @ filter P (span code s t) @ blanked P code spans t"
proof -
  let ?C = "covered ((s, t, n) # spans)"
  have le: "a \<le> s" "s \<le> t" "ordered t spans (length code)" "t \<le> length code"
    using assms ordered_le by auto
  have "[a..<length code] = [a..<s] @ [s..<t] @ [t..<length code]"
    using le by (metis le_trans upt_add_eq_append le_add_diff_inverse)
  moreover have c: "?C i \<longleftrightarrow> False" if "i < s" for i
    using that not_covered_before[of a "(s, t, n) # spans" "length code" i] le
      not_covered_before[of t spans "length code" i] by (auto simp: covered_def)
  moreover have "filter (\<lambda>i. \<not> ?C i \<or> P (code ! i)) [a..<s] = [a..<s]"
    using c by (auto intro: filter_True)
  moreover have "filter (\<lambda>i. \<not> ?C i \<or> P (code ! i)) [s..<t] = filter (\<lambda>i. P (code ! i)) [s..<t]"
    by (rule filter_cong) (auto simp: covered_def)
  moreover have "filter (\<lambda>i. \<not> ?C i \<or> P (code ! i)) [t..<length code] =
      filter (\<lambda>i. \<not> covered spans i \<or> P (code ! i)) [t..<length code]"
    by (rule filter_cong) (auto simp: covered_def)
  ultimately show ?thesis using le by (simp add: blanked_def span_map_nth filter_map comp_def)
qed

text \<open>The spans carry the numbers of their line breaks.\<close>

definition counted :: "bytes \<Rightarrow> (nat \<times> nat \<times> nat) list \<Rightarrow> bool" where
  "counted code spans \<longleftrightarrow> (\<forall>(s, t, n)\<in>set spans. n = line_breaks (span code s t))"

text \<open>Whatever the line endings, the copy is right up to carriage returns.\<close>

lemma filter_no_cr_newlines:
  "filter (\<lambda>c. c \<noteq> CR) (concat (replicate n (newline ending))) = replicate n LF"
  by (induction n) (auto simp: newline_def split: LineEnding.splits)

lemma filter_LF: "filter (\<lambda>c. c = LF) xs = replicate (line_breaks xs) LF"
  by (induction xs) auto

lemma cut_no_cr:
  "\<lbrakk> ordered a spans (length code); counted code spans \<rbrakk> \<Longrightarrow>
    filter (\<lambda>c. c \<noteq> CR) (cut ending code a spans) =
    filter (\<lambda>c. c \<noteq> CR) (blanked (\<lambda>c. c = LF) code spans a)"
proof (induction spans arbitrary: a)
  case (Cons sp spans)
  obtain s t n where sp: "sp = (s, t, n)" by (cases sp)
  have "filter (\<lambda>c. c \<noteq> CR) (kept_cr code s t) = []" by (simp add: kept_cr_def)
  moreover have "filter (\<lambda>c. c \<noteq> CR) (filter (\<lambda>c. c = LF) xs) = filter (\<lambda>c. c = LF) xs" for xs :: bytes
    by (induction xs) auto
  ultimately show ?case using Cons
    by (auto simp: sp blanked_Cons filter_no_cr_newlines counted_def filter_LF simp del: filter_filter)
qed (simp add: blanked_Nil)

text \<open>With uniform line endings it is right byte by byte.\<close>

abbreviation is_break :: "char \<Rightarrow> bool" where "is_break c \<equiv> c = LF \<or> c = CR"

lemma crlf_span:
  assumes "crlf_text code" "s < t \<longrightarrow> code ! s \<noteq> LF" "s \<le> t" "t \<le> length code"
  shows "filter is_break (span code s t) =
    concat (replicate (line_breaks (span code s t)) [CR, LF]) @
    (if s < t \<and> code ! (t - 1) = CR then [CR] else [])"
  using assms(3,2,4)
proof (induction t rule: dec_induct)
  case (step t)
  have lf: "code ! t = LF \<longleftrightarrow> 0 < t \<and> code ! (t - 1) = CR"
    using assms(1) step by (auto simp: crlf_text_def)
  have pairs: "concat (replicate n [CR, LF]) @ [CR, LF] = CR # LF # concat (replicate n [CR, LF])" for n
    by (induction n) auto
  show ?case
    using step lf by (cases "s = t"; cases "code ! t = LF"; cases "code ! t = CR") (auto simp: span_Suc pairs)
qed simp

lemma cut_crlf:
  assumes "crlf_text code" "detect code = Some ending"
  shows "\<lbrakk> ordered a spans (length code); counted code spans;
      \<forall>(s, t, n)\<in>set spans. s < t \<longrightarrow> code ! s \<noteq> LF \<rbrakk> \<Longrightarrow>
    cut ending code a spans = blanked is_break code spans a"
proof (induction spans arbitrary: a)
  case (Cons sp spans)
  obtain s t n where sp: "sp = (s, t, n)" by (cases sp)
  have st: "s \<le> t" "t \<le> length code" "s < t \<longrightarrow> code ! s \<noteq> LF" "n = line_breaks (span code s t)"
    using Cons.prems by (auto simp: sp counted_def dest: ordered_le)
  have k: "kept_cr code s t = (if s < t \<and> code ! (t - 1) = CR then [CR] else [])"
  proof (cases "s < t \<and> code ! (t - 1) = CR")
    case cr: True
    have "t \<noteq> length code" using assms(1) cr by (auto simp: crlf_text_def last_conv_nth)
    then have "t < length code" "code ! t = LF" using assms(1) cr st by (auto simp: crlf_text_def)
    then show ?thesis using cr by (simp add: kept_cr_def)
  qed (auto simp: kept_cr_def)
  have e: "concat (replicate n (newline ending)) = concat (replicate n [CR, LF])"
  proof (cases "LF \<in> set code")
    case True
    then show ?thesis using detect_Crlf[OF assms(1) True] assms(2) by (simp add: newline_def)
  next
    case False
    then have "n = 0"
      using st by (auto simp: line_breaks_def span_def filter_empty_conv dest!: in_set_takeD in_set_dropD)
    then show ?thesis by simp
  qed
  have "filter is_break (span code s t) = concat (replicate n (newline ending)) @ kept_cr code s t"
    using crlf_span[OF assms(1) st(3) st(1,2)] by (simp add: e k st(4)[symmetric])
  then show ?case using Cons by (simp add: sp blanked_Cons counted_def)
qed (simp add: blanked_Nil)

lemma cut_lf:
  assumes "CR \<notin> set code"
  shows "\<lbrakk> ordered a spans (length code); counted code spans \<rbrakk> \<Longrightarrow>
    cut Lf code a spans = blanked (\<lambda>c. c = LF) code spans a"
proof (induction spans arbitrary: a)
  case (Cons sp spans)
  obtain s t n where sp: "sp = (s, t, n)" by (cases sp)
  have "code ! i \<noteq> CR" if "i < length code" for i using assms that nth_mem by metis
  then have "kept_cr code s t = []" by (auto simp: kept_cr_def)
  moreover have "concat (replicate n [LF]) = replicate n LF" by (induction n) auto
  ultimately show ?case using Cons
    by (simp add: sp blanked_Cons counted_def newline_def filter_LF)
qed (simp add: blanked_Nil)

lemma blanked_no_cr:
  assumes "CR \<notin> set code"
  shows "blanked is_break code spans a = blanked (\<lambda>c. c = LF) code spans a"
proof -
  have "code ! i \<noteq> CR" if "i < length code" for i using assms that nth_mem by metis
  then show ?thesis by (auto simp: blanked_def intro!: arg_cong[of _ _ "map ((!) code)"] filter_cong)
qed

lemma cut_uniform:
  assumes "uniform_endings code" "detect code = Some ending"
    and "ordered a spans (length code)" "counted code spans" "\<forall>(s, t, n)\<in>set spans. s < t \<longrightarrow> code ! s \<noteq> LF"
  shows "cut ending code a spans = blanked is_break code spans a"
proof (cases "crlf_text code")
  case False
  then have "CR \<notin> set code" using assms(1) by (simp add: uniform_endings_def)
  then show ?thesis using cut_lf[of code a spans] detect_Lf[of code] assms(2-4) by (simp add: blanked_no_cr)
qed (use cut_crlf[OF _ assms(2-)] in simp)

section \<open>The comments of a tree\<close>

text \<open>
  What is removed: the comments, not inside one another, that are not useful to the language. The
  chain each node is judged with is the path from the root to it.
\<close>

fun removed_comments :: "comment_checker \<Rightarrow> bytes \<Rightarrow> tree_node list \<Rightarrow> tree_node \<Rightarrow> tree_node list" where
  "removed_comments T code ancestors (Tree_Node k a b r s cs) =
     (let node = Tree_Node k a b r s cs in
      if is_comment T node \<and> is_useful_comment T node code ancestors = Some False then [node]
      else concat (map (removed_comments T code (ancestors @ [node])) cs))"

definition node_span :: "tree_node \<Rightarrow> nat \<times> nat \<times> nat" where
  "node_span n = (node_start n, node_end n, end_row n - start_row n)"

fun nodes :: "tree_node \<Rightarrow> tree_node list" where
  "nodes (Tree_Node k a b r s cs) = Tree_Node k a b r s cs # concat (map nodes cs)"

text \<open>
  A tree over a text: rows count line feeds, and the children of a node lie in it from left to right.
\<close>

definition row_at :: "bytes \<Rightarrow> nat \<Rightarrow> nat" where
  "row_at code i = line_breaks (take i code)"

fun tree_over :: "bytes \<Rightarrow> tree_node \<Rightarrow> bool" where
  "tree_over code (Tree_Node k a b r s cs) \<longleftrightarrow>
     a \<le> b \<and> b \<le> length code \<and> r = row_at code a \<and> s = row_at code b \<and>
     ordered a (map node_span cs) b \<and> (\<forall>c\<in>set cs. tree_over code c)"

text \<open>The language answers for every node it is asked about.\<close>

definition answers :: "comment_checker \<Rightarrow> bytes \<Rightarrow> tree_node \<Rightarrow> bool" where
  "answers T code root \<longleftrightarrow>
     (\<forall>n\<in>set (nodes root). \<forall>ancestors. is_comment T n \<longrightarrow> is_useful_comment T n code ancestors \<noteq> None)"

lemma answers_child: "\<lbrakk> answers T code n; c \<in> set (node_children n) \<rbrakk> \<Longrightarrow> answers T code c"
  by (cases n) (auto simp: answers_def)

lemma answers_self:
  "\<lbrakk> answers T code n; is_comment T n \<rbrakk> \<Longrightarrow> \<exists>u. is_useful_comment T n code ancestors = Some u"
  by (cases n) (fastforce simp: answers_def)

lemma row_span: "a \<le> b \<Longrightarrow> row_at code b = row_at code a + line_breaks (span code a b)"
  unfolding row_at_def span_def by (metis le_add_diff_inverse line_breaks_simps(3) take_add)

lemma rows_ordered: "tree_over code n \<Longrightarrow> start_row n \<le> end_row n"
  by (cases n) (auto simp: row_span)

text \<open>
  The stack's walk is the recursive one, and the chain it keeps is the path: below the depth of the
  node it is never touched.
\<close>

lemma comment_walk_nodes:
  assumes "\<And>c chain stack spans. \<lbrakk> c \<in> set cs; d \<le> length chain \<rbrakk> \<Longrightarrow> \<exists>chain'.
      comment_walk T code ((c, d) # stack) chain spans =
        comment_walk T code stack chain' (spans @ rev (map node_span (f (take d chain) c))) \<and>
      take d chain' = take d chain \<and> d \<le> length chain'"
    and "d \<le> length chain"
  shows "\<exists>chain'. comment_walk T code (map (\<lambda>c. (c, d)) (rev cs) @ stack) chain spans =
        comment_walk T code stack chain' (spans @ rev (map node_span (concat (map (f (take d chain)) cs)))) \<and>
      take d chain' = take d chain \<and> d \<le> length chain'"
  using assms
proof (induction cs arbitrary: chain spans rule: rev_induct)
  case (snoc c cs)
  obtain chain1 where c1: "comment_walk T code (map (\<lambda>c. (c, d)) (rev (cs @ [c])) @ stack) chain spans =
      comment_walk T code (map (\<lambda>c. (c, d)) (rev cs) @ stack) chain1
        (spans @ rev (map node_span (f (take d chain) c)))"
    "take d chain1 = take d chain" "d \<le> length chain1"
    using snoc.prems by fastforce
  obtain chain2 where "comment_walk T code (map (\<lambda>c. (c, d)) (rev cs) @ stack) chain1
        (spans @ rev (map node_span (f (take d chain) c))) =
      comment_walk T code stack chain2 ((spans @ rev (map node_span (f (take d chain) c))) @
        rev (map node_span (concat (map (f (take d chain1)) cs))))"
    "take d chain2 = take d chain1" "d \<le> length chain2"
    using snoc.IH[OF _ c1(3)] snoc.prems(1) by (metis (no_types, lifting) UnCI set_append)
  then show ?case using c1 by auto
qed auto

lemma comment_walk_node:
  "\<lbrakk> tree_over code n; answers T code n; d \<le> length chain \<rbrakk> \<Longrightarrow> \<exists>chain'.
    comment_walk T code ((n, d) # stack) chain spans =
      comment_walk T code stack chain' (spans @ rev (map node_span (removed_comments T code (take d chain) n))) \<and>
    take d chain' = take d chain \<and> d \<le> length chain'"
proof (induction n arbitrary: d chain stack spans)
  case (Tree_Node k a b r s cs)
  let ?n = "Tree_Node k a b r s cs" and ?anc = "take d chain"
  obtain u where u: "is_comment T ?n \<Longrightarrow> is_useful_comment T ?n code ?anc = Some u"
    using answers_self[OF Tree_Node.prems(2)] by blast
  show ?case
  proof (cases "is_comment T ?n \<and> \<not> u")
    case True
    then show ?thesis using u Tree_Node.prems rows_ordered[OF Tree_Node.prems(1)]
      by (auto simp: node_span_def intro!: exI[of _ ?anc])
  next
    case False
    then have step: "comment_walk T code ((?n, d) # stack) chain spans =
        comment_walk T code (map (\<lambda>c. (c, d + 1)) (rev cs) @ stack)
          (if cs = [] then ?anc else ?anc @ [?n]) spans"
      using u by (cases "is_comment T ?n") (auto simp: Let_def)
    have rm: "removed_comments T code ?anc ?n = concat (map (removed_comments T code (?anc @ [?n])) cs)"
      using False u by (auto simp: Let_def)
    show ?thesis
    proof (cases "cs = []")
      case True
      then show ?thesis using step rm Tree_Node.prems(3) by (auto intro!: exI[of _ ?anc])
    next
      case ne: False
      have "\<exists>chain'. comment_walk T code (map (\<lambda>c. (c, d + 1)) (rev cs) @ stack) (?anc @ [?n]) spans =
          comment_walk T code stack chain'
            (spans @ rev (map node_span (concat (map (removed_comments T code (take (d + 1) (?anc @ [?n]))) cs)))) \<and>
          take (d + 1) chain' = take (d + 1) (?anc @ [?n]) \<and> d + 1 \<le> length chain'"
        by (rule comment_walk_nodes)
          (use Tree_Node.IH Tree_Node.prems answers_child[OF Tree_Node.prems(2)] in auto)
      then obtain chain' where "comment_walk T code (map (\<lambda>c. (c, d + 1)) (rev cs) @ stack) (?anc @ [?n]) spans =
          comment_walk T code stack chain' (spans @ rev (map node_span (removed_comments T code ?anc ?n)))"
        "take (d + 1) chain' = ?anc @ [?n]" "d + 1 \<le> length chain'"
        using Tree_Node.prems(3) by (auto simp: rm simp del: removed_comments.simps)
      moreover have "take d chain' = ?anc"
      proof -
        have "take d chain' = take d (take (d + 1) chain')" by simp
        also have "\<dots> = ?anc"
          unfolding \<open>take (d + 1) chain' = ?anc @ [?n]\<close> using Tree_Node.prems(3) by simp
        finally show ?thesis .
      qed
      ultimately show ?thesis using step ne by auto
    qed
  qed
qed

text \<open>The spans collected lie one after the other, with their line breaks counted.\<close>

lemma ordered_weaken: "\<lbrakk> ordered a spans b; a' \<le> a; b \<le> b' \<rbrakk> \<Longrightarrow> ordered a' spans b'"
  by (induction a spans b arbitrary: a' rule: ordered.induct) auto

lemma ordered_append: "\<lbrakk> ordered a xs b; ordered b ys c \<rbrakk> \<Longrightarrow> ordered a (xs @ ys) c"
  by (induction a xs b rule: ordered.induct) (auto intro: ordered_weaken)

lemma ordered_children:
  "\<lbrakk> ordered a (map node_span cs) b; \<And>c. c \<in> set cs \<Longrightarrow> ordered (node_start c) (map node_span (f c)) (node_end c) \<rbrakk>
    \<Longrightarrow> ordered a (map node_span (concat (map f cs))) b"
  by (induction cs arbitrary: a) (auto simp: node_span_def intro: ordered_append ordered_weaken)

lemma removed_ordered:
  "tree_over code n \<Longrightarrow> ordered (node_start n) (map node_span (removed_comments T code anc n)) (node_end n)"
  by (induction n arbitrary: anc) (auto simp: Let_def node_span_def intro!: ordered_children)

lemma removed_over:
  "\<lbrakk> tree_over code n; c \<in> set (removed_comments T code anc n) \<rbrakk> \<Longrightarrow> tree_over code c"
  by (induction n arbitrary: anc) (auto simp: Let_def split: if_splits)

lemma removed_counted: "tree_over code n \<Longrightarrow> counted code (map node_span (removed_comments T code anc n))"
proof -
  have "end_row c - start_row c = line_breaks (span code (node_start c) (node_end c))" if "tree_over code c" for c
    using that by (cases c) (auto simp: row_span)
  then show "tree_over code n \<Longrightarrow> ?thesis" by (auto simp: counted_def node_span_def dest: removed_over)
qed

lemma removed_within:
  assumes "tree_over code root"
  shows "ordered 0 (map node_span (removed_comments T code [] root)) (length code)"
  by (rule ordered_weaken[OF removed_ordered[OF assms]]) (use assms in \<open>cases root; simp\<close>)+

lemma rm_comments_cut:
  assumes "tree_over code root" "answers T code root" "detect code = Some ending"
  shows "rm_comments T root code = Some (let cs = removed_comments T code [] root in
    if cs = [] then None else Some (cut ending code 0 (map node_span cs)))"
proof -
  let ?spans = "map node_span (removed_comments T code [] root)"
  have "comment_walk T code [(root, 0)] [] [] = Some (rev ?spans)"
    using comment_walk_node[OF assms(1,2), of 0 "[]" "[]" "[]"] by auto
  then show ?thesis using remove_from_code_eq[OF removed_within[OF assms(1)] assms(3)]
    by (simp add: rm_comments_def Let_def)
qed

lemma line_breaks_blanked: "line_breaks (blanked (\<lambda>c. c = LF) code spans 0) = line_breaks code"
proof -
  have "line_breaks code = length (filter (\<lambda>i. code ! i = LF) [0..<length code])"
  proof -
    have "filter (\<lambda>c. c = LF) code = map ((!) code) (filter (\<lambda>i. code ! i = LF) [0..<length code])"
      using filter_span[of 0 "length code" code "\<lambda>c. c = LF"] by (simp add: span_all)
    then show ?thesis by (simp add: line_breaks_def)
  qed
  moreover have "line_breaks (blanked (\<lambda>c. c = LF) code spans 0) =
      length (filter (\<lambda>i. code ! i = LF) (filter (\<lambda>i. \<not> covered spans i \<or> code ! i = LF) [0..<length code]))"
    by (simp add: line_breaks_def blanked_def filter_map comp_def del: filter_filter)
  moreover have "filter (\<lambda>i. code ! i = LF) (filter (\<lambda>i. \<not> covered spans i \<or> code ! i = LF) xs) =
      filter (\<lambda>i. code ! i = LF) xs" for xs
    by (auto intro: filter_cong)
  ultimately show ?thesis by simp
qed

lemma line_breaks_no_cr: "line_breaks (filter (\<lambda>c. c \<noteq> CR) xs) = line_breaks xs"
  by (induction xs) auto

lemma nodes_over: "\<lbrakk> tree_over code n; m \<in> set (nodes n) \<rbrakk> \<Longrightarrow> tree_over code m"
  by (induction n) auto

lemma Ccomment_answers: "tree_over code root \<Longrightarrow> answers (CcommentCode is_match) code root"
proof -
  have s: "\<exists>text. slice code (node_start n) (node_end n) = Some text" if "tree_over code n" for n
    using that by (cases n) simp
  have "is_useful_comment (CcommentCode is_match) n code ancestors \<noteq> None" if "tree_over code n" for n ancestors
    using s[OF that] by (auto simp: CcommentCode_def)
  then show "tree_over code root \<Longrightarrow> ?thesis" unfolding answers_def using nodes_over by blast
qed

text \<open>A text with carriage returns, its tree and a string search, as an example.\<close>

lemma crlf_text_code [code]: "crlf_text code \<longleftrightarrow>
    list_all (\<lambda>i. code ! i = LF \<longleftrightarrow> 0 < i \<and> code ! (i - 1) = CR) [0..<length code] \<and> (code = [] \<or> last code \<noteq> CR)"
  by (auto simp: crlf_text_def list_all_iff)

definition contains :: "bytes list \<Rightarrow> bytes \<Rightarrow> bool" where
  "contains needles text \<longleftrightarrow>
     list_ex (\<lambda>n. list_ex (\<lambda>i. take (length n) (drop i text) = n) [0..<Suc (length text)]) needles"

definition crlf_code :: bytes where
  "crlf_code = ''int a; /* x'' @ [CR, LF] @ '' */ // y'' @ [CR, LF] @ ''/* <div rustbindgen */'' @ [CR, LF]"

definition crlf_tree :: tree_node where
  "crlf_tree = Tree_Node 6 0 47 0 3 [Tree_Node 7 7 16 0 1 [], Tree_Node 7 17 22 1 1 [], Tree_Node 7 23 45 2 2 []]"

section \<open>Properties\<close>

text \<open>
  Property C14. Removing the comments of a text whose line endings are of one kind gives exactly the
  text without the bytes of these comments, except that their carriage returns and line feeds stay;
  nothing is returned when there is no comment to remove, and no step panics. The comments removed are
  those the language does not call useful when it sees the real path from the root to them.
\<close>

theorem rm_comments_blanks:
  assumes "tree_over code root" "answers T code root" "uniform_endings code"
    and "\<forall>c\<in>set (removed_comments T code [] root). node_start c < node_end c \<longrightarrow> code ! node_start c \<noteq> LF"
  shows "rm_comments T root code = Some (let cs = removed_comments T code [] root in
    if cs = [] then None else Some (blanked is_break code (map node_span cs) 0))"
proof -
  obtain ending where e: "detect code = Some ending" using detect_Some by blast
  have "cut ending code 0 (map node_span (removed_comments T code [] root)) =
      blanked is_break code (map node_span (removed_comments T code [] root)) 0"
    using assms(4)
    by (intro cut_uniform[OF assms(3) e removed_within[OF assms(1)] removed_counted[OF assms(1)]])
      (auto simp: node_span_def)
  then show ?thesis using rm_comments_cut[OF assms(1,2) e] by (simp add: Let_def)
qed

theorem rm_comments_blanks_witness:
  "rm_comments (CcommentCode contains) crlf_tree crlf_code =
     Some (Some (''int a; '' @ [CR, LF] @ '' '' @ [CR, LF] @ ''/* <div rustbindgen */'' @ [CR, LF]))"
proof -
  have over: "tree_over crlf_code crlf_tree" by code_simp
  have uniform: "uniform_endings crlf_code" unfolding uniform_endings_def by (intro disjI2) code_simp
  have "\<forall>c\<in>set (removed_comments (CcommentCode contains) crlf_code [] crlf_tree).
      node_start c < node_end c \<longrightarrow> crlf_code ! node_start c \<noteq> LF" by code_simp
  from rm_comments_blanks[OF over Ccomment_answers[OF over] uniform this]
  show ?thesis by (rule trans) code_simp
qed

text \<open>
  Whatever the line endings of the text, comment removal keeps every line: the result has
  as many line feeds as the text, and up to carriage returns it is the text without the comments' bytes
  other than line feeds. A line of code has the same number before and after.
\<close>

theorem rm_comments_keeps_lines:
  assumes "tree_over code root" "answers T code root"
  shows "\<exists>r. rm_comments T root code = Some r \<and>
    (case r of None \<Rightarrow> removed_comments T code [] root = []
     | Some new \<Rightarrow> line_breaks new = line_breaks code \<and>
         filter (\<lambda>c. c \<noteq> CR) new = filter (\<lambda>c. c \<noteq> CR)
           (blanked (\<lambda>c. c = LF) code (map node_span (removed_comments T code [] root)) 0))"
proof -
  let ?spans = "map node_span (removed_comments T code [] root)"
  obtain ending where e: "detect code = Some ending" using detect_Some by blast
  have cut: "filter (\<lambda>c. c \<noteq> CR) (cut ending code 0 ?spans) =
      filter (\<lambda>c. c \<noteq> CR) (blanked (\<lambda>c. c = LF) code ?spans 0)"
    by (rule cut_no_cr[OF removed_within[OF assms(1)] removed_counted[OF assms(1)]])
  have "line_breaks (cut ending code 0 ?spans) = line_breaks code"
    using arg_cong[OF cut, of line_breaks] by (simp only: line_breaks_no_cr line_breaks_blanked)
  then show ?thesis using cut rm_comments_cut[OF assms e] by (simp add: Let_def)
qed

theorem rm_comments_keeps_lines_witness:
  "case rm_comments (CcommentCode contains) crlf_tree crlf_code of
     Some (Some new) \<Rightarrow> line_breaks new = 3 | _ \<Rightarrow> False"
proof -
  have over: "tree_over crlf_code crlf_tree" by code_simp
  have "removed_comments (CcommentCode contains) crlf_code [] crlf_tree \<noteq> []" "line_breaks crlf_code = 3"
    by code_simp+
  then show ?thesis using rm_comments_keeps_lines[OF over Ccomment_answers[OF over], of contains]
    by (auto split: option.splits)
qed

text \<open>
  Property C38. Nothing takes the place of a comment within a line: the two texts around it are joined,
  and so are two tokens that only the comment separates. In C a comment stands for a space.
\<close>

definition one_comment :: "nat \<Rightarrow> bytes \<Rightarrow> bytes \<Rightarrow> bytes \<Rightarrow> tree_node" where
  "one_comment k a c b = Tree_Node k 0 (length (a @ c @ b)) 0 (line_breaks (a @ c @ b))
     [Tree_Node Ccomment_Comment (length a) (length (a @ c)) (line_breaks a) (line_breaks (a @ c)) []]"

theorem comment_in_line_joins:
  assumes "LF \<notin> set c" "CR \<notin> set c" "k \<noteq> Ccomment_Comment" "\<not> is_match [''<div rustbindgen''] c"
  shows "rm_comments (CcommentCode is_match) (one_comment k a c b) (a @ c @ b) = Some (Some (a @ b))"
proof -
  let ?T = "CcommentCode is_match" and ?code = "a @ c @ b"
  let ?c = "Tree_Node Ccomment_Comment (length a) (length (a @ c)) (line_breaks a) (line_breaks (a @ c)) []"
  have breaks: "line_breaks c = 0" using assms(1) by (auto simp: line_breaks_def filter_empty_conv)
  have tree: "tree_over ?code (one_comment k a c b)"
    by (simp add: one_comment_def row_at_def node_span_def)
  have ans: "answers ?T ?code (one_comment k a c b)" by (rule Ccomment_answers[OF tree])
  have "removed_comments ?T ?code [] (one_comment k a c b) = [?c]"
    using assms(3,4)
    by (simp add: one_comment_def CcommentCode_def get_aho_corasick_match_def span_def)
  moreover obtain ending where "detect ?code = Some ending" using detect_Some by blast
  moreover have "kept_cr ?code (length a) (length (a @ c)) = []"
    using assms(2) by (cases c rule: rev_cases) (auto simp: kept_cr_def nth_append)
  ultimately show ?thesis using rm_comments_cut[OF tree ans]
    by (simp add: node_span_def breaks span_def)
qed

theorem comment_in_line_joins_witness:
  "rm_comments (CcommentCode contains) (one_comment 6 ''int'' ''/**/'' ''x;'') ''int/**/x;'' = Some (Some ''intx;'')"
  using comment_in_line_joins[of "''/**/''" 6 contains "''int''" "''x;''"]
  by (simp add: Ccomment_Comment_def contains_def upt_rec)

end
