(* ===== verification/Line_Endings.thy ===== *)
theory Line_Endings
  imports Comment_Rm
begin

text \<open>
  \<open>normalize_line_endings\<close> of \<^verbatim>\<open>tools.rs\<close>, which every file and every request body goes through
  before it is parsed, and the removal of comments from a file. The loop compacts the buffer in place:
  it reads at \<open>r\<close> and writes at \<open>w\<close>, which stays behind. \<^term>\<open>None\<close> is a panic.
\<close>

section \<open>The code\<close>

definition set_at :: "'a list \<Rightarrow> nat \<Rightarrow> 'a \<Rightarrow> 'a list option" where
  "set_at xs i x = (if i < length xs then Some (xs[i := x]) else None)"

function (sequential) compact :: "bytes \<Rightarrow> nat \<Rightarrow> nat \<Rightarrow> (bytes \<times> nat) option" where
  "compact data w r =
     (if r < length data then do {
        c \<leftarrow> byte_at data r;
        if c = CR then do {
          data \<leftarrow> set_at data w LF;
          compact data (w + 1) (r + (if byte_at data (r + 1) = Some LF then 2 else 1))
        } else do {
          c \<leftarrow> byte_at data r;
          data \<leftarrow> set_at data w c;
          compact data (w + 1) (r + 1)
        }
      } else Some (data, w))"
  by pat_completeness auto

termination compact
  by (relation "measure (\<lambda>(data, w, r). length data - r)") (auto simp: set_at_def split: if_splits)

declare compact.simps [simp del]

definition normalize_line_endings :: "bytes \<Rightarrow> bytes option" where
  "normalize_line_endings data = do {
     (data, w) \<leftarrow> compact data 0 0;
     let data = take w data;
     let trailing = length (takeWhile (\<lambda>c. c = LF) (rev data));
     n \<leftarrow> usize_sub (length data) trailing;
     Some (take n data @ [LF])
   }"

text \<open>\<open>normalize_eol\<close> is the same on a buffer it owns.\<close>

definition normalize_eol :: "bytes \<Rightarrow> bytes option" where
  "normalize_eol data = do { data \<leftarrow> normalize_line_endings data; Some data }"

section \<open>The reference\<close>

text \<open>A line ends with LF, CR or CR LF. The text ends with one line feed.\<close>

fun unix_lines :: "bytes \<Rightarrow> bytes" where
  "unix_lines [] = []"
| "unix_lines [c] = [if c = CR then LF else c]"
| "unix_lines (c # d # cs) =
     (if c = CR then LF # (if d = LF then unix_lines cs else unix_lines (d # cs))
      else c # unix_lines (d # cs))"

definition one_final_LF :: "bytes \<Rightarrow> bytes" where
  "one_final_LF xs = rev (dropWhile (\<lambda>c. c = LF) (rev xs)) @ [LF]"

text \<open>One round of the loop: the byte written and how far the reader moves.\<close>

definition read_step :: "bytes \<Rightarrow> nat \<Rightarrow> char \<times> nat" where
  "read_step data r =
     (if data ! r = CR then (LF, if byte_at data (r + 1) = Some LF then 2 else 1) else (data ! r, 1))"

lemma compact_step:
  assumes "w \<le> r" "r < length data" "read_step data r = (c, k)"
  shows "compact data w r = compact (data[w := c]) (w + 1) (r + k)"
proof -
  have "byte_at (data[w := LF]) (r + 1) = byte_at data (r + 1)"
    using assms(1) by (auto simp: byte_at_def nth_list_update)
  then show ?thesis using assms
    by (subst compact.simps) (auto simp: read_step_def set_at_def split: if_splits)
qed

lemma unix_lines_step:
  assumes "r < length data" "read_step data r = (c, k)"
  shows "unix_lines (drop r data) = c # unix_lines (drop (r + k) data)" "0 < k" "r + k \<le> length data"
proof -
  have d: "drop r data = data ! r # drop (r + 1) data" using assms(1) by (simp add: Cons_nth_drop_Suc)
  show "unix_lines (drop r data) = c # unix_lines (drop (r + k) data)"
  proof (cases "r + 1 < length data")
    case True
    then have d': "drop (r + 1) data = data ! (r + 1) # drop (r + 2) data"
      using Cons_nth_drop_Suc[of "r + 1" data] by simp
    show ?thesis using assms(2) True d' by (auto simp: d read_step_def split: if_splits)
  qed (use assms in \<open>auto simp: d read_step_def byte_at_def split: if_splits\<close>)
qed (use assms in \<open>auto simp: read_step_def byte_at_def split: if_splits\<close>)

lemma compact_unix:
  "\<lbrakk> w \<le> r; r \<le> length data \<rbrakk> \<Longrightarrow>
    \<exists>data' w'. compact data w r = Some (data', w') \<and> w' \<le> length data' \<and>
      take w' data' = take w data @ unix_lines (drop r data)"
proof (induction "length data - r" arbitrary: data w r rule: less_induct)
  case less
  show ?case
  proof (cases "r < length data")
    case True
    obtain c k where ck: "read_step data r = (c, k)" by fastforce
    note u = unix_lines_step[OF True ck]
    have "\<exists>data' w'. compact (data[w := c]) (w + 1) (r + k) = Some (data', w') \<and> w' \<le> length data' \<and>
        take w' data' = take (w + 1) (data[w := c]) @ unix_lines (drop (r + k) (data[w := c]))"
      using u less.prems by (intro less.hyps) auto
    moreover have "take (w + 1) (data[w := c]) = take w data @ [c]"
      using less.prems True by (simp add: take_Suc_conv_app_nth)
    ultimately show ?thesis using u less.prems by (simp add: compact_step[OF less.prems(1) True ck])
  qed (use less.prems in \<open>subst compact.simps; simp\<close>)
qed

lemma take_trailing: "take (length xs - length (takeWhile P (rev xs))) xs = rev (dropWhile P (rev xs))"
  by (metis dropWhile_eq_drop rev_drop rev_rev_ident length_rev)

lemma normalize_line_endings_eq: "normalize_line_endings data = Some (one_final_LF (unix_lines data))"
proof -
  obtain data' w' where "compact data 0 0 = Some (data', w')" "take w' data' = unix_lines data"
    using compact_unix[of 0 0 data] by auto
  moreover have "length (takeWhile P (rev xs)) \<le> length xs" for P and xs :: bytes
    by (metis length_rev length_takeWhile_le)
  ultimately show ?thesis by (simp add: normalize_line_endings_def one_final_LF_def take_trailing Let_def)
qed

lemma unix_lines_no_cr: "CR \<notin> set (unix_lines xs)"
  by (induction xs rule: unix_lines.induct) auto

lemma unix_lines_id: "CR \<notin> set xs \<Longrightarrow> unix_lines xs = xs"
  by (induction xs rule: unix_lines.induct) auto

lemma set_one_final_LF: "set (one_final_LF xs) \<subseteq> insert LF (set xs)"
  by (auto simp: one_final_LF_def dest: set_dropWhileD)

lemma one_final_LF_ends: "takeWhile (\<lambda>c. c = LF) (rev (one_final_LF xs)) = [LF]"
proof -
  have "takeWhile P (dropWhile P ys) = []" for P and ys :: bytes by (induction ys) auto
  then show ?thesis by (simp add: one_final_LF_def)
qed

lemma one_final_LF_id: "takeWhile (\<lambda>c. c = LF) (rev xs) = [LF] \<Longrightarrow> one_final_LF xs = xs"
  by (metis one_final_LF_def rev_append rev_rev_ident takeWhile_dropWhile_id rev.simps(1,2) append_Nil)

text \<open>
  Property C28. A buffer of any bytes is normalised without a panic: every line that ends with CR, CR LF or LF
  ends with LF afterwards, no carriage return is left, line feeds at the end become one, and normalising
  again changes nothing.
\<close>

theorem normalize_line_endings_correct:
  "\<exists>code. normalize_line_endings data = Some code \<and> code = one_final_LF (unix_lines data) \<and>
    CR \<notin> set code \<and> takeWhile (\<lambda>c. c = LF) (rev code) = [LF] \<and> normalize_line_endings code = Some code"
proof -
  let ?code = "one_final_LF (unix_lines data)"
  have "CR \<notin> set ?code" using set_one_final_LF unix_lines_no_cr by fastforce
  then show ?thesis
    by (simp add: normalize_line_endings_eq unix_lines_id one_final_LF_ends one_final_LF_id)
qed

end
