(* ===== verification/Read_File.thy ===== *)
theory Read_File
  imports Line_Endings
begin

text \<open>
  Reading a source file, \<open>read_gated\<close> of \<^verbatim>\<open>tools.rs\<close>. The file system is an input: the size
  it reports, whether it is a regular file or a directory, and what opening the file gives. A file that
  opens delivers bytes until its end or until an error. The results of the code are sums, an error or a
  reason to skip on the left; \<^term>\<open>None\<close> is a panic.
\<close>

section \<open>Decoding\<close>

text \<open>
  \<^verbatim>\<open>str::from_utf8\<close> with its error: \<open>Utf8_Incomplete\<close> is an error with no \<^verbatim>\<open>error_len\<close>, when
  the bytes end inside a character.
\<close>

datatype utf8_result = Utf8_Ok | Utf8_Incomplete | Utf8_Invalid

fun utf8_check :: "nat list \<Rightarrow> utf8_result" where
  "utf8_check [] = Utf8_Ok"
| "utf8_check (a # bs) =
     (if a \<le> 0x7F then utf8_check bs
      else if 0xC2 \<le> a \<and> a \<le> 0xDF then
        (case bs of [] \<Rightarrow> Utf8_Incomplete
         | b # r \<Rightarrow> if utf8_cont b then utf8_check r else Utf8_Invalid)
      else if 0xE0 \<le> a \<and> a \<le> 0xEF then
        (case bs of [] \<Rightarrow> Utf8_Incomplete
         | [b] \<Rightarrow> if utf8_second a b then Utf8_Incomplete else Utf8_Invalid
         | b # c # r \<Rightarrow> if utf8_second a b \<and> utf8_cont c then utf8_check r else Utf8_Invalid)
      else if 0xF0 \<le> a \<and> a \<le> 0xF4 then
        (case bs of [] \<Rightarrow> Utf8_Incomplete
         | [b] \<Rightarrow> if utf8_second a b then Utf8_Incomplete else Utf8_Invalid
         | [b, c] \<Rightarrow> if utf8_second a b \<and> utf8_cont c then Utf8_Incomplete else Utf8_Invalid
         | b # c # d # r \<Rightarrow>
             if utf8_second a b \<and> utf8_cont c \<and> utf8_cont d then utf8_check r else Utf8_Invalid)
      else Utf8_Invalid)"

lemma utf8_check_valid: "utf8_check bs = Utf8_Ok \<longleftrightarrow> utf8_valid bs"
  by (induction bs rule: utf8_check.induct) (auto split: list.splits)

text \<open>One character: two lists that agree on it, and one list that ends inside it.\<close>

lemma utf8_check_lead:
  assumes "utf8_valid ((a # bs) @ ys)" "utf8_check (a # bs) = Utf8_Invalid"
  shows "\<exists>n. utf8_valid (drop n bs @ ys) \<and> utf8_check (drop n bs) = Utf8_Invalid"
proof -
  consider "a \<le> 0x7F" | "\<not> a \<le> 0x7F" "0xC2 \<le> a \<and> a \<le> 0xDF"
    | "\<not> a \<le> 0x7F" "\<not> (0xC2 \<le> a \<and> a \<le> 0xDF)" "0xE0 \<le> a \<and> a \<le> 0xEF"
    | "\<not> a \<le> 0x7F" "\<not> (0xC2 \<le> a \<and> a \<le> 0xDF)" "\<not> (0xE0 \<le> a \<and> a \<le> 0xEF)" "0xF0 \<le> a \<and> a \<le> 0xF4"
    using assms(1) by (simp split: if_splits)
  then show ?thesis
  proof cases
    case 1
    then show ?thesis using assms by (intro exI[of _ 0]) simp
  next
    case 2
    then show ?thesis using assms
      by (intro exI[of _ 1]) (simp only: append_Cons utf8_valid.simps utf8_check.simps if_True if_False; simp split: list.splits if_splits)
  next
    case 3
    then show ?thesis using assms
      by (intro exI[of _ 2]) (simp only: append_Cons utf8_valid.simps utf8_check.simps if_True if_False; simp split: list.splits if_splits)
  next
    case 4
    then show ?thesis using assms
      by (intro exI[of _ 3]) (simp only: append_Cons utf8_valid.simps utf8_check.simps if_True if_False; simp split: list.splits if_splits)
  qed
qed

lemma utf8_check_prefix: "utf8_valid (xs @ ys) \<Longrightarrow> utf8_check xs \<noteq> Utf8_Invalid"
proof (induction xs rule: length_induct)
  case (1 xs)
  show ?case
  proof (cases xs)
    case (Cons a bs)
    then show ?thesis using utf8_check_lead[of a bs ys] 1 by (fastforce simp del: utf8_valid.simps utf8_check.simps)
  qed simp
qed

section \<open>The code\<close>

definition UTF8_PROBE_BYTES :: nat where "UTF8_PROBE_BYTES = 64"

datatype SkipReason = Empty | TooSmall | Utf16Bom | NotUtf8

definition for_size :: "nat \<Rightarrow> SkipReason" where
  "for_size n = (if n = 0 then Empty else TooSmall)"

text \<open>\<^verbatim>\<open>starts_with\<close> and \<^verbatim>\<open>strip_prefix\<close>.\<close>

definition starts_with :: "'a list \<Rightarrow> 'a list \<Rightarrow> bool" where
  "starts_with xs p \<longleftrightarrow> take (length p) xs = p"

definition strip_prefix :: "'a list \<Rightarrow> 'a list \<Rightarrow> 'a list option" where
  "strip_prefix xs p = (if starts_with xs p then Some (drop (length p) xs) else None)"

abbreviation UTF8_BOM :: bytes where "UTF8_BOM \<equiv> [CHR 0xEF, CHR 0xBB, CHR 0xBF]"

definition probe_decodable_prefix :: "bytes \<Rightarrow> nat \<Rightarrow> nat \<Rightarrow> SkipReason + bytes" where
  "probe_decodable_prefix start file_size probe_len =
     (if starts_with start [CHR 0xFE, CHR 0xFF] \<or> starts_with start [CHR 0xFF, CHR 0xFE] then Inl Utf16Bom
      else
        let start = (case strip_prefix start UTF8_BOM of Some rest \<Rightarrow> rest | None \<Rightarrow> start);
            probe_truncated = (file_size > probe_len)
        in case utf8_check (map of_char start) of
             Utf8_Ok \<Rightarrow> Inr start
           | Utf8_Incomplete \<Rightarrow> if probe_truncated then Inr start else Inl NotUtf8
           | Utf8_Invalid \<Rightarrow> Inl NotUtf8)"

record 'e file_entry =
  metadata :: "(nat \<times> bool) option"
  open_file :: "'e + bytes \<times> 'e option"

datatype 'e ReadStop = Io 'e | Skip SkipReason

definition read_gated :: "'e file_entry \<Rightarrow> ('e ReadStop + bytes) option" where
  "read_gated f = (
     let file_size = (case metadata f of Some (n, _) \<Rightarrow> n | None \<Rightarrow> 1024 * 1024) in
     if file_size \<le> 3 then
       (if (case metadata f of Some (_, file_or_dir) \<Rightarrow> file_or_dir | None \<Rightarrow> False) then
          (case open_file f of
             Inl e \<Rightarrow> Some (Inl (Io e))
           | Inr ([], Some e) \<Rightarrow> Some (Inl (Io e))
           | Inr _ \<Rightarrow> Some (Inl (Skip (for_size file_size))))
        else Some (Inl (Skip (for_size file_size))))
     else
       case open_file f of
         Inl e \<Rightarrow> Some (Inl (Io e))
       | Inr (bs, err) \<Rightarrow>
           let probe_len = min UTF8_PROBE_BYTES file_size in
           if length bs < probe_len then
             Some (Inl (case err of Some e \<Rightarrow> Io e | None \<Rightarrow> Skip TooSmall))
           else
             case probe_decodable_prefix (take probe_len bs) file_size probe_len of
               Inl reason \<Rightarrow> Some (Inl (Skip reason))
             | Inr start \<Rightarrow>
                 (case err of
                    Some e \<Rightarrow> Some (Inl (Io e))
                  | None \<Rightarrow> do {
                      data \<leftarrow> normalize_line_endings (start @ drop probe_len bs);
                      Some (Inr data)
                    }))"

definition read_file_with_eol_classified :: "'e file_entry \<Rightarrow> ('e + (SkipReason + bytes)) option" where
  "read_file_with_eol_classified f = do {
     r \<leftarrow> read_gated f;
     Some (case r of
       Inr data \<Rightarrow> Inr (Inr data)
     | Inl (Skip reason) \<Rightarrow> Inr (Inl reason)
     | Inl (Io err) \<Rightarrow> Inl err)
   }"

text \<open>\<open>read_file\<close> has no gates.\<close>

definition read_file :: "'e file_entry \<Rightarrow> ('e + bytes) option" where
  "read_file f = (case open_file f of
     Inl e \<Rightarrow> Some (Inl e)
   | Inr (_, Some e) \<Rightarrow> Some (Inl e)
   | Inr (data, None) \<Rightarrow> do { data \<leftarrow> normalize_line_endings data; Some (Inr data) })"

section \<open>Every UTF-8 text is read\<close>

definition strip_bom :: "bytes \<Rightarrow> bytes" where
  "strip_bom text = (case strip_prefix text UTF8_BOM of Some rest \<Rightarrow> rest | None \<Rightarrow> text)"

definition plain_file :: "bytes \<Rightarrow> 'e file_entry" where
  "plain_file text = \<lparr> metadata = Some (length text, True), open_file = Inr (text, None) \<rparr>"

lemma utf8_valid_bom: "utf8_valid (map of_char (UTF8_BOM @ xs)) \<longleftrightarrow> utf8_valid (map of_char xs)"
  by (simp add: utf8_second_def utf8_cont_def)

lemma utf8_not_utf16:
  assumes "utf8_valid (map of_char text)"
  shows "\<not> starts_with (take n text) [CHR 0xFE, CHR 0xFF]" "\<not> starts_with (take n text) [CHR 0xFF, CHR 0xFE]"
proof -
  have "\<exists>zs. text = a # zs" if "starts_with (take n text) [a, b]" for a b
    using that by (cases "text"; cases n) (auto simp: starts_with_def)
  then show "\<not> starts_with (take n text) [CHR 0xFE, CHR 0xFF]" "\<not> starts_with (take n text) [CHR 0xFF, CHR 0xFE]"
    using assms by fastforce+
qed

lemma strip_prefix_bom: "strip_prefix xs UTF8_BOM = (if take 3 xs = UTF8_BOM then Some (drop 3 xs) else None)"
proof -
  have "length UTF8_BOM = 3" by simp
  then show ?thesis by (simp only: strip_prefix_def starts_with_def)
qed

lemma strip_bom_eq: "strip_bom xs = (if take 3 xs = UTF8_BOM then drop 3 xs else xs)"
  by (simp add: strip_bom_def strip_prefix_bom)

lemma strip_bom_valid:
  assumes "utf8_valid (map of_char xs)"
  shows "utf8_valid (map of_char (strip_bom xs))"
proof (cases "take 3 xs = UTF8_BOM")
  case True
  then have "xs = UTF8_BOM @ drop 3 xs" by (metis append_take_drop_id)
  then have "utf8_valid (map of_char (drop 3 xs))" using assms utf8_valid_bom by metis
  then show ?thesis using True by (simp add: strip_bom_eq)
qed (use assms in \<open>simp add: strip_bom_eq\<close>)

lemma strip_bom_probe:
  "3 \<le> n \<Longrightarrow> (case strip_prefix (take n text) UTF8_BOM of Some rest \<Rightarrow> rest | None \<Rightarrow> take n text) @ drop n text =
    strip_bom text"
proof -
  assume n: "3 \<le> n"
  then have "drop 3 (take n text) @ drop n text = drop 3 text"
    by (metis append_take_drop_id drop_drop drop_take le_add_diff_inverse2)
  moreover have "take 3 (take n text) = take 3 text" using n by (simp add: min_absorb1)
  ultimately show ?thesis by (simp add: strip_bom_eq strip_prefix_bom)
qed

lemma probe_utf8:
  assumes "utf8_valid (map of_char text)" "n \<le> length text" "3 \<le> n"
  shows "\<exists>start. probe_decodable_prefix (take n text) (length text) n = Inr start \<and>
    start @ drop n text = strip_bom text"
proof -
  let ?start = "case strip_prefix (take n text) UTF8_BOM of Some rest \<Rightarrow> rest | None \<Rightarrow> take n text"
  have split: "?start @ drop n text = strip_bom text" by (rule strip_bom_probe[OF assms(3)])
  then have valid: "utf8_valid (map of_char ?start @ map of_char (drop n text))"
    using strip_bom_valid[OF assms(1)] by (metis map_append)
  have "utf8_check (map of_char ?start) \<noteq> Utf8_Invalid" by (rule utf8_check_prefix[OF valid])
  moreover have "utf8_check (map of_char ?start) = Utf8_Ok" if "length text \<le> n"
    using valid that by (simp add: utf8_check_valid)
  ultimately have "utf8_check (map of_char ?start) = Utf8_Ok \<or>
      utf8_check (map of_char ?start) = Utf8_Incomplete \<and> n < length text"
    by (cases "utf8_check (map of_char ?start)"; cases "n < length text") auto
  then have "probe_decodable_prefix (take n text) (length text) n = Inr ?start"
    using utf8_not_utf16[OF assms(1)] by (auto simp: probe_decodable_prefix_def Let_def)
  then show ?thesis using split by blast
qed

lemma utf8_text_read:
  assumes "utf8_valid (map of_char text)" "3 < length text"
  shows "read_file_with_eol_classified (plain_file text) =
    Some (Inr (Inr (one_final_LF (unix_lines (strip_bom text)))))"
proof -
  let ?n = "min UTF8_PROBE_BYTES (length text)"
  obtain start where "probe_decodable_prefix (take ?n text) (length text) ?n = Inr start"
    "start @ drop ?n text = strip_bom text"
    using probe_utf8[OF assms(1), of ?n] assms(2) by (auto simp: UTF8_PROBE_BYTES_def)
  then show ?thesis using assms(2)
    by (simp add: read_file_with_eol_classified_def read_gated_def plain_file_def normalize_line_endings_eq Let_def)
qed

text \<open>
  Every file of valid UTF-8 with more than three bytes is read: a character that the end of the
  probe window cuts in two does not make it a binary file. What is read is the text without its byte
  order mark, its line endings normalised.
\<close>

theorem utf8_file_read:
  assumes "utf8_valid (map of_char text)" "3 < length text"
  shows "read_file_with_eol_classified (plain_file text) =
    Some (Inr (Inr (one_final_LF (unix_lines (strip_bom text)))))"
  by (rule utf8_text_read[OF assms])

theorem utf8_file_read_witness:
  "read_file_with_eol_classified
      (plain_file (UTF8_BOM @ replicate 60 CHR ''a'' @ [CHR 0xC3, CHR 0xA9, CR]) :: nat file_entry) =
     Some (Inr (Inr (replicate 60 CHR ''a'' @ [CHR 0xC3, CHR 0xA9, LF])))"
proof -
  let ?text = "UTF8_BOM @ replicate 60 CHR ''a'' @ [CHR 0xC3, CHR 0xA9, CR]"
  have "utf8_valid (map of_char ?text)" "3 < length ?text" by code_simp+
  from utf8_file_read[OF this] show ?thesis by (rule trans) code_simp
qed

end
