(* ===== verification/Strip_Comments.thy ===== *)
theory Strip_Comments
  imports Visible_Macros Read_File
begin

text \<open>
  The command that strips comments from C and C++ files: read, parse with the comment grammar, remove.
  The parser is a parameter that gives a tree over the text.
\<close>

text \<open>
  \<open>dispatch_strip_comments\<close> of \<^verbatim>\<open>dispatch.rs\<close> for the C family: whatever dialect was asked for, the
  comment grammar parses the file. It is not one of the languages whose macros \<open>Parser_new\<close> masks.
\<close>

definition dispatch_strip_comments ::
  "(bytes list \<Rightarrow> bytes \<Rightarrow> bool) \<Rightarrow> (bytes \<Rightarrow> tree_node) \<Rightarrow> bytes \<Rightarrow> path \<Rightarrow> preproc_files option \<Rightarrow>
    bytes option option" where
  "dispatch_strip_comments is_match parse source path pr = do {
     code \<leftarrow> Parser_new False source path pr;
     rm_comments (CcommentCode is_match) (parse code) code
   }"

text \<open>
  Property C9. A C or C++ file of valid UTF-8 with more than three bytes is read and stripped without a
  panic. What comes out is the normalised text without the bytes of its comments but with their line
  feeds: no macro is masked in it, it has no carriage return, and as many lines as the text that was read.
\<close>

theorem c_file_stripped:
  assumes "utf8_valid (map of_char text)" "3 < length text" "\<And>code. tree_over code (parse code)"
  shows "\<exists>source r. read_file_with_eol_classified (plain_file text) = Some (Inr (Inr source)) \<and>
    dispatch_strip_comments is_match parse source path pr = Some r \<and>
    r = (let cs = removed_comments (CcommentCode is_match) source [] (parse source) in
         if cs = [] then None else Some (blanked (\<lambda>c. c = LF) source (map node_span cs) 0)) \<and>
    (let new = case r of None \<Rightarrow> source | Some new \<Rightarrow> new in
     CR \<notin> set new \<and> line_breaks new = line_breaks source)"
proof -
  let ?source = "one_final_LF (unix_lines (strip_bom text))"
  let ?cs = "removed_comments (CcommentCode is_match) ?source [] (parse ?source)"
  have cr: "CR \<notin> set ?source" using set_one_final_LF unix_lines_no_cr by fastforce
  have read: "read_file_with_eol_classified (plain_file text) = Some (Inr (Inr ?source))"
    by (rule utf8_text_read[OF assms(1,2)])
  have "cut Lf ?source 0 (map node_span ?cs) = blanked (\<lambda>c. c = LF) ?source (map node_span ?cs) 0"
    by (rule cut_lf[OF cr removed_within[OF assms(3)] removed_counted[OF assms(3)]])
  then have "dispatch_strip_comments is_match parse ?source path pr = Some (if ?cs = [] then None
      else Some (blanked (\<lambda>c. c = LF) ?source (map node_span ?cs) 0))"
    using rm_comments_cut[OF assms(3) Ccomment_answers[OF assms(3)] detect_Lf[OF cr], of is_match]
    by (cases pr) (simp_all add: dispatch_strip_comments_def Parser_new_def get_fake_code_def Let_def)
  moreover have "CR \<notin> set (blanked P ?source spans 0)" for P spans
    using cr by (auto simp: blanked_def in_set_conv_nth)
  ultimately show ?thesis using read cr
    by (intro exI[of _ ?source] exI[of _ "if ?cs = [] then None else
        Some (blanked (\<lambda>c. c = LF) ?source (map node_span ?cs) 0)"])
      (simp add: line_breaks_blanked Let_def)
qed

text \<open>For the example, a parser that finds one comment in one text.\<close>

definition demo_parse :: "bytes \<Rightarrow> tree_node" where
  "demo_parse code = (if code = ''int a;'' @ ''/*b*/'' @ [LF] then one_comment 6 ''int a;'' ''/*b*/'' [LF]
     else Tree_Node 6 0 (length code) 0 (line_breaks code) [])"

lemma demo_parse_over: "tree_over code (demo_parse code)"
  by (simp add: demo_parse_def one_comment_def row_at_def node_span_def)

theorem c_file_stripped_witness:
  "dispatch_strip_comments contains demo_parse (''int a;'' @ ''/*b*/'' @ [LF]) [] None =
    Some (Some (''int a;'' @ [LF]))"
proof -
  let ?text = "''int a;'' @ ''/*b*/'' @ [CR, LF, LF]" and ?source = "''int a;'' @ ''/*b*/'' @ [LF]"
  let ?r = "\<lambda>source. let cs = removed_comments (CcommentCode contains) source [] (demo_parse source) in
      if cs = [] then None else Some (blanked (\<lambda>c. c = LF) source (map node_span cs) 0)"
  have utf8: "utf8_valid (map of_char ?text)" "3 < length ?text" by code_simp+
  obtain source where source:
    "read_file_with_eol_classified (plain_file ?text :: nat file_entry) = Some (Inr (Inr source))"
    "dispatch_strip_comments contains demo_parse source [] None = Some (?r source)"
    using c_file_stripped[OF utf8 demo_parse_over, of contains "[]" None, where ?'a = nat] by blast
  have "read_file_with_eol_classified (plain_file ?text :: nat file_entry) = Some (Inr (Inr ?source))"
    by code_simp
  then have "source = ?source" using source(1) by simp
  moreover have "?r ?source = Some (''int a;'' @ [LF])" by code_simp
  ultimately show ?thesis using source(2) by (simp only:)
qed

end
