(* ===== verification/Spec2Isabelle.thy ===== *)
theory Spec2Isabelle
  imports Array_H Scan_Mozcpp Scan_Raw_String Scan_Tcl Scan_Mozjs Ccomment_Text Ccomment_Table Preproc_Text
    Preproc_Parse Tcl_Parse Generated_Lexers Mozjs_Parse Mozjs_External Visible_Macros Strip_Comments
begin

text \<open>
  A verification development for the C code of big-code-analysis and for the part of its Rust code
  that feeds the C parsers: reading a file, preprocessing C and C++ sources, and removing comments.

  \<^bold>\<open>The program.\<close> big-code-analysis computes source-code metrics for some twenty
  languages. It is a Rust program, but everything it knows of a source file it gets from
  tree-sitter parsers, and five of these, written or adapted for it, are part of the repository as
  C code: \<^verbatim>\<open>tree-sitter-ccomment\<close> (comments, strings and macro definitions of C
  and C++, used to find comments the C++ grammar cannot see), \<^verbatim>\<open>tree-sitter-preproc\<close>
  (directives and their nesting, used to resolve includes and macros before the C++ parse),
  \<^verbatim>\<open>tree-sitter-mozcpp\<close>, \<^verbatim>\<open>tree-sitter-mozjs\<close> and
  \<^verbatim>\<open>tree-sitter-tcl\<close>. Each has a \<^verbatim>\<open>src/parser.c\<close> generated from
  its \<^verbatim>\<open>grammar.js\<close> (a lexer, the parse tables and the language record that
  names them), a hand-written external scanner for the tokens no regular expression describes, and
  the headers \<^verbatim>\<open>tree_sitter/parser.h\<close> and \<^verbatim>\<open>tree_sitter/array.h\<close>.
  The tree-sitter runtime calls the lexer and the scanner for a token and walks the tables with it.
  The runtime is a third-party library that is not in the repository.

  A C or C++ file is parsed without expanding its macros, so a macro name can break the parse. The
  Rust crate \<^verbatim>\<open>big-code-analysis-ast\<close> therefore works in three steps.
  \<^verbatim>\<open>preprocess\<close> walks the tree the preprocessor grammar gives for each file and collects the
  macros and the quoted includes. \<^verbatim>\<open>fix_includes\<close> resolves the includes to files
  (\<^verbatim>\<open>guess_file\<close>), collapses the cycles of the include graph and records with each file what it
  includes indirectly. \<^verbatim>\<open>Parser::new\<close> asks for the macros visible to the file
  (\<^verbatim>\<open>visible_macros\<close>) and overwrites their names with dollar signs
  (\<^verbatim>\<open>c_macro::replace\<close>) before the parse.

  Every file comes in through \<^verbatim>\<open>read_file_with_eol_classified\<close>, which rejects what is too small or not
  UTF-8 by a probe of its first bytes and normalises the line ends. The command that strips comments parses a C or
  C++ file with the comment grammar, collects the spans of the comments (\<^verbatim>\<open>rm_comments\<close>) and copies
  the rest with the line breaks the comments held.

  \<^bold>\<open>The theories.\<close>
  \<^item> \<^theory_text>\<open>TS_Prelude\<close>: characters, C initialisers with designators, list lemmas.
  \<^item> \<^theory_text>\<open>Parser_H\<close>: \<^verbatim>\<open>parser.h\<close>, which is the same file in
    the grammars but for one more type name in Tcl's: the lexer object and its callbacks, the lexer macros (a generated lexer is
    the function from a state to its case; \<^theory_text>\<open>lex_fn\<close> is the loop the macros make of it), the
    table macros, the language record, and \<^verbatim>\<open>set_contains\<close>.
  \<^item> \<^theory_text>\<open>Lexer_Runtime\<close>: the interface to the runtime as the locale
    \<^theory_text>\<open>text_runtime\<close>, whose laws are the documented behaviour of the callbacks over a
    text, with a cursor over a list of characters as an instance; the scanners' loop
    \<^theory_text>\<open>scan_while\<close>; the character classes of \<^verbatim>\<open>wctype.h\<close>, a parameter.
  \<^item> \<^theory_text>\<open>Array_H\<close>: \<^verbatim>\<open>array.h\<close>, on blocks of memory cells with 32-bit
    sizes. An operation that would read or write outside its block, read an uninitialised cell, or
    fail an assertion is \<^theory_text>\<open>None\<close>. \<^theory_text>\<open>array_list\<close> is the list an array holds;
    every operation is shown to compute its counterpart on lists.
  \<^item> \<^theory_text>\<open>Raw_Delimiter\<close>, \<^theory_text>\<open>Scan_Mozcpp\<close>, \<^theory_text>\<open>Scan_Raw_String\<close>:
    the raw string scanners (\<^verbatim>\<open>tree-sitter-mozcpp/src/scanner.c\<close>, and
    \<^verbatim>\<open>scanner.cc\<close> of ccomment and preproc). Their loop over the content keeps one index
    into the closing delimiter; the first theory has the argument why that finds the first closer.
  \<^item> \<^theory_text>\<open>Scan_Mozjs\<close>, \<^theory_text>\<open>Scan_Tcl\<close>: the JavaScript and Tcl scanners.
  \<^item> \<^theory_text>\<open>Lexer_Munch\<close>, \<^theory_text>\<open>Token_Regex\<close>: generated lexers in general. A switch is an
    automaton, its loop computes the longest match, and the words that lead to a token are compared
    with the regular expression of the grammar by derivatives.
  \<^item> \<^theory_text>\<open>C_Tokens\<close>: the patterns both grammars share (comments, quoted literals,
    continuation lines) and, as locales, the states a lexer has for them; both lexers interpret them.
  \<^item> \<^theory_text>\<open>Ccomment_Lex\<close>, \<^theory_text>\<open>Preproc_Lex\<close>: \<^verbatim>\<open>ts_lex\<close> of the two parsers, one
    definition per case. \<^theory_text>\<open>Ccomment_Text\<close>, \<^theory_text>\<open>Preproc_Tokens\<close>,
    \<^theory_text>\<open>Preproc_Text\<close>: their languages and what they do to a text. The preprocessor lexer starts
    an item in three states that differ in the directives they know; the locale
    \<^theory_text>\<open>item_states\<close> holds what they share.
  \<^item> \<^theory_text>\<open>Lr_Tables\<close>: how the runtime reads a parse table, the shift-reduce automaton it
    drives, and the grammar a \<^verbatim>\<open>grammar.js\<close> denotes. Three locales state what a parser
    file must provide: tables given by initialisers, tables with a certificate of soundness, tables that never
    get stuck. Two more properties of tables are decided by checks on the grammar: how the inner symbols of a derived word
    nest, and which tokens end the words of a nonterminal. The
    last part reads tables in pieces, so that a large table is checked one row at a time, and checks
    that the fields of a production name children it has.
  \<^item> \<^theory_text>\<open>Ccomment_Table\<close>, \<^theory_text>\<open>Preproc_Table\<close>: the tables of the two
    parsers, array by array, their grammars, and their certificates. \<^theory_text>\<open>Preproc_Parse\<close>: the
    preprocessor's lexer and tables together.
  \<^item> \<^theory_text>\<open>Tcl_Lex\<close>, \<^theory_text>\<open>Tcl_Keywords\<close>: \<^verbatim>\<open>ts_lex\<close> and
    \<^verbatim>\<open>ts_lex_keywords\<close> of Tcl, again one definition per case; the second has the words of
    the keyword lexer. \<^theory_text>\<open>Tcl_Text\<close>: the tokens a command starts with, on every text.
    \<^theory_text>\<open>Tcl_Table\<close>: the tables of Tcl, in pieces (2 large and 715 small states), with the fields,
    the lex modes and the language record. \<^theory_text>\<open>Tcl_Grammar\<close>: the rules of
    \<^verbatim>\<open>grammar.json\<close>, inlined rules put in place. \<^theory_text>\<open>Tcl_Certificate\<close>,
    \<^theory_text>\<open>Tcl_Parser\<close>: the certificate, and what follows from it for the tables.
    \<^theory_text>\<open>Tcl_Parse\<close>: Tcl's lexer and tables together.
  \<^item> \<^theory_text>\<open>Mozjs_Lex\<close>: \<^verbatim>\<open>ts_lex\<close> and \<^verbatim>\<open>ts_lex_keywords\<close> of the
    JavaScript grammar, with the character sets. \<^theory_text>\<open>Mozjs_Text\<close>, \<^theory_text>\<open>Mozjs_Number\<close>,
    \<^theory_text>\<open>Mozjs_Tokens\<close>: identifiers, numbers and comments in the lex states where code stands. These states
    share what lies behind the first character, so each is compared with the others character by character and the
    languages are computed once.
  \<^item> \<^theory_text>\<open>Mozjs_Symbols\<close>, \<^theory_text>\<open>Mozjs_Rows\<close>, \<^theory_text>\<open>Mozjs_Runs\<close>,
    \<^theory_text>\<open>Mozjs_Table\<close>: all tables of the JavaScript parser (388 large and 1491 small states, 1802 lists of
    actions). \<^theory_text>\<open>Mozjs_Modes\<close>: a text for each token of each lex mode, and one check of a table
    entry; \<^theory_text>\<open>Mozjs_Check_Rows\<close>, \<^theory_text>\<open>Mozjs_Check_Runs\<close> evaluate it on all 69,090 entries, and
    \<^theory_text>\<open>Mozjs_Parse\<close> has what follows. \<^theory_text>\<open>Mozjs_External\<close>: the sets of valid
    symbols the tables pass to the scanner.
  \<^item> \<^theory_text>\<open>Mozcpp_Lex\<close>, \<^theory_text>\<open>Mozcpp_Keywords\<close>: the two lexers of the C++ grammar, 1185 and
    1818 cases. \<^theory_text>\<open>Generated_Lexers\<close>: maximal munch for all the generated lexers.
  \<^item> \<^theory_text>\<open>Rust_Bytes\<close>, \<^theory_text>\<open>Rust_Path\<close>: what the Rust code uses of its
    standard library: slices and indices that panic, \<^verbatim>\<open>for\<close> loops, UTF-8, and paths as
    lists of components with their spelling.
  \<^item> \<^theory_text>\<open>C_Macro\<close>: \<^verbatim>\<open>c_macro.rs\<close>, function by function.
    \<^theory_text>\<open>C_Macro_Lexer\<close>: a reference lexer by recursion on the text, and the simulation that
    the byte loop with its cursors computes the same. \<^theory_text>\<open>C_Macro_Text\<close>: what it does to
    comments, literals, identifiers and numbers. \<^theory_text>\<open>C_Names\<close>: the tables of predefined
    names and the search in them.
  \<^item> \<^theory_text>\<open>Guess_File\<close>: the resolution of an include in \<^verbatim>\<open>tools.rs\<close>.
    \<^theory_text>\<open>Petgraph\<close>: the interface of the graph library as a record of its functions and a
    locale of their documented laws, with an implementation by lists as an instance.
    \<^theory_text>\<open>Include_Graph\<close>: the graph part of \<^verbatim>\<open>preproc.rs\<close>; the order in which a
    hashed container is iterated is a parameter with a locale of its own.
    \<^theory_text>\<open>Include_Build\<close>, \<^theory_text>\<open>Include_Collapse\<close>, \<^theory_text>\<open>Include_Closure\<close>: the graph
    is the include relation, collapsing the cycles is taking a quotient, and the closures filled in
    reverse topological order are what is reachable.
  \<^item> \<^theory_text>\<open>Preproc_Walk\<close>: the rest of \<^verbatim>\<open>preproc.rs\<close>, the walk over a tree.
    \<^theory_text>\<open>Visible_Macros\<close>: \<^verbatim>\<open>get_fake_code\<close> and \<^verbatim>\<open>Parser::new\<close>, and the
    properties that join all of this.
  \<^item> \<^theory_text>\<open>Comment_Rm\<close>: \<^verbatim>\<open>comment_rm.rs\<close> and the comment grammar's answers to it.
    \<^theory_text>\<open>Line_Endings\<close>, \<^theory_text>\<open>Read_File\<close>: the in-place normalisation of line ends and the gates
    of \<^verbatim>\<open>read_gated\<close>; a file is its metadata and the bytes and error that reading gives.
    \<^theory_text>\<open>Strip_Comments\<close>: the command over all of them.

  \<^bold>\<open>What is shown.\<close> For the lexers: maximal munch on every text, and which words are
  which token, in terms of the expressions of the grammar, of its extras and of the precedence of one token over
  another (all tokens of the comment grammar; for the preprocessor grammar, in the lex
  states its parse states use; for JavaScript, identifiers, numbers and comments; for Tcl, what a command starts
  with, where the lexer departs from the grammar's extras in a way that is stated); that the lex mode of a state can
  return every token its table row knows, the external scanner aside; that the keyword lexer of Tcl accepts the
  keywords and no other word. For the tables of ccomment, preproc and Tcl: every accepted token
  sequence is derivable in the grammar, every entry is in bounds and
  decides one action, and in every reachable configuration each action of the table can be taken; for JavaScript, whose
  tables have conflicts, that every entry is in bounds and offers an action; the comment
  parser accepts every sequence of items; in what the preprocessor parser accepts the conditionals are nested,
  and in what the Tcl parser accepts the brackets and braces are, and every command is terminated, the last one too.
  For the scanners: what each accepts on every text, where
  the token ends, that it always returns, and that the state survives serialisation. For the arrays:
  splicing, sorted insertion and stack order. For the preprocessing: the masking pass computes the
  reference lexer and keeps the layout, comments and literals; an include finds the file it names
  relative to its directory, and otherwise a nearest candidate; whatever cycles the includes form, every file gets
  exactly the files reachable from it; and, over all the steps, an identifier of a file is masked
  exactly when it is predefined or the last directive for it in some reachable file is a definition. None of the
  steps panics. Comment removal keeps exactly the bytes outside the removed comments and the line breaks inside them,
  the normalisation of line ends computes its reference, every valid UTF-8 file is read, and a C file is stripped
  line for line with no macro masked. Some theorems state defects: comments between two tokens of a line that are removed
  without a blank, directives
  behind a line end, line ends in front of a backslash (Tcl), delimiters of sixteen characters, delimiters with a
  parenthesis, identifiers that begin with \<^verbatim>\<open>in\<close>, keys from \<^verbatim>\<open>2 ^ 31\<close> on, and suffixes
  of numbers that are masked as macros.

  \<^bold>\<open>Parameters and bounds.\<close> A loop whose end depends on the runtime is a
  \<^theory_text>\<open>partial_function\<close>, whose value \<^theory_text>\<open>None\<close> is not returning; that it
  returns on a text of any length is part of each property, so no fuel is needed. The only numeric
  bounds are the code's: 32-bit sizes in \<^theory_text>\<open>Array_H\<close>, the 8-bit length and 16
  places of the mozcpp scanner. A \<^verbatim>\<open>wchar_t\<close> has 32 bits and the machine is
  little-endian. In the Rust model a panic is \<^theory_text>\<open>None\<close>; positions are natural numbers,
  since no buffer is long enough for their sums to wrap; the laws of the graph library and of the iteration order
  are hypotheses of the properties that need them, and the witnesses discharge them for the
  instances. \<^theory_text>\<open>unit_depth\<close> in \<^theory_text>\<open>Lr_Tables\<close> bounds the chains of hidden
  unit productions a certificate may skip; a larger bound would accept more certificates, not change
  what they prove.

  \<^bold>\<open>Not modelled.\<close> The runtime's error recovery, its handling of conflicts (of the tables
  modelled only those of JavaScript have any but repetitions) and the syntax trees it builds, so a tree is an input
  of the walks; the parse tables of mozcpp (650,000 lines of initialisers, which do not load within the time of a check); a certificate
  of the JavaScript tables against their grammar; allocation failure; and the rest of the Rust crates: the metrics, which
  are visitors over the trees of some twenty grammars, the guessing of a file's language, the serialisation of
  results, and the command line, web and version-control layers.
\<close>

end
